(* ===== verification/Prelude.thy ===== *)
theory Prelude
  imports Main "HOL-Library.Word" "HOL-Library.Sublist"
begin

text \<open>
  Shared vocabulary of the development: the collections of rewrite rules the component
  theories add to, the integer types of \<^verbatim>\<open>tree_sitter/parser.h\<close> that need no wrap-around
  (they are only stored and compared), the ASCII character constants of the C sources, and
  the generic facts on lists and 32-bit words the components share.
\<close>

named_theorems lex_eqs \<open>unfolding equations of the lexer loops\<close>
named_theorems tab_defs \<open>definitions of the generated tables\<close>

type_synonym TSStateId = nat
type_synonym TSSymbol = nat
type_synonym TSFieldId = nat
type_synonym code_point = int

subsection \<open>ASCII constants of the C sources\<close>

text \<open>
  The scanner and the lexers compare the lookahead (an \<^verbatim>\<open>int32_t\<close> code point) with C character
  constants. \<open>CH c\<close> is the code of the character \<open>c\<close>.
\<close>

definition CH :: "char \<Rightarrow> code_point" where
  "CH c = of_char c"

lemma CH_inject [simp]: "CH c = CH d \<longleftrightarrow> c = d"
  by (simp add: CH_def)

text \<open>A string literal of the sources as the code points the lexer sees.\<close>

definition codes :: "string \<Rightarrow> code_point list" where
  "codes s = map CH s"

lemma codes_simps [simp]:
  "codes [] = []" "codes (c # cs) = CH c # codes cs"
  "codes (s @ t) = codes s @ codes t" "length (codes s) = length s"
  by (simp_all add: codes_def)

lemma codes_eq_Nil [simp]: "codes s = [] \<longleftrightarrow> s = []"
  by (simp add: codes_def)

lemma codes_inject [simp]: "codes s = codes t \<longleftrightarrow> s = t"
proof (induction s arbitrary: t)
  case (Cons c s)
  then show ?case by (cases t) auto
qed (auto simp: codes_def)

definition is_digit :: "code_point \<Rightarrow> bool" where
  "is_digit c \<longleftrightarrow> 48 \<le> c \<and> c \<le> 57"

definition is_letter :: "code_point \<Rightarrow> bool" where
  "is_letter c \<longleftrightarrow> 65 \<le> c \<and> c \<le> 90 \<or> 97 \<le> c \<and> c \<le> 122"

definition is_blank :: "code_point \<Rightarrow> bool" where
  "is_blank c \<longleftrightarrow> 9 \<le> c \<and> c \<le> 13 \<or> c = 32"

subsection \<open>Lists\<close>

lemma drop_eq_tl_funpow: "drop (Suc n) xs = tl (drop n xs)"
  by (simp add: drop_Suc tl_drop)

lemma list_all_imp_nth: "list_all P xs \<Longrightarrow> i < length xs \<Longrightarrow> P (xs ! i)"
  by (simp add: list_all_length)

text \<open>
  A table as a conjunction, ten entries at a time: the conjunction of a large table is then split
  into its parts in reasonable time.
\<close>

lemma list_all_tens:
  "list_all P [] \<longleftrightarrow> True"
  "list_all P [a] \<longleftrightarrow> P a"
  "list_all P [a, b] \<longleftrightarrow> P a \<and> P b"
  "list_all P [a, b, c] \<longleftrightarrow> P a \<and> P b \<and> P c"
  "list_all P [a, b, c, d] \<longleftrightarrow> P a \<and> P b \<and> P c \<and> P d"
  "list_all P [a, b, c, d, e] \<longleftrightarrow> P a \<and> P b \<and> P c \<and> P d \<and> P e"
  "list_all P [a, b, c, d, e, f] \<longleftrightarrow> P a \<and> P b \<and> P c \<and> P d \<and> P e \<and> P f"
  "list_all P [a, b, c, d, e, f, g] \<longleftrightarrow> P a \<and> P b \<and> P c \<and> P d \<and> P e \<and> P f \<and> P g"
  "list_all P [a, b, c, d, e, f, g, h] \<longleftrightarrow> P a \<and> P b \<and> P c \<and> P d \<and> P e \<and> P f \<and> P g \<and> P h"
  "list_all P [a, b, c, d, e, f, g, h, i] \<longleftrightarrow> P a \<and> P b \<and> P c \<and> P d \<and> P e \<and> P f \<and> P g \<and> P h \<and> P i"
  "list_all P (a # b # c # d # e # f # g # h # i # j # xs) \<longleftrightarrow>
     (P a \<and> P b \<and> P c \<and> P d \<and> P e \<and> P f \<and> P g \<and> P h \<and> P i \<and> P j) \<and> list_all P xs"
  by simp_all

lemma map_of_list_all:
  "list_all (\<lambda>(k, v). P k v) al \<Longrightarrow> map_of al k = Some v \<Longrightarrow> P k v"
  by (auto simp: list_all_iff dest!: map_of_SomeD)

text \<open>The entries of a table with distinct keys, as equations.\<close>

lemma map_of_all: "distinct (map fst al) \<Longrightarrow> list_all (\<lambda>(k, b). map_of al k = Some b) al"
  by (auto simp: list_all_iff)

lemma upt_join: "i \<le> j \<Longrightarrow> j \<le> k \<Longrightarrow> [i..<j] @ [j..<k] = [i..<k]"
  by (metis le_Suc_ex upt_add_eq_append)

lemma upt_from_0: "2 < (numeral n :: nat) \<Longrightarrow> [0..<numeral n] = 0 # Suc 0 # [2..<numeral n]"
  by (simp add: upt_conv_Cons numeral_2_eq_2)

lemma map_of_upt_keys: "map fst cs = [0..<n] \<Longrightarrow> map_of cs t \<noteq> None \<longleftrightarrow> t < n"
  by (metis atLeastLessThan_iff dom_map_of_conv_image_fst image_set domIff set_upt zero_le)

lemma map_of_other: "map fst cs = [i..<j] \<Longrightarrow> s < i \<or> j \<le> s \<Longrightarrow> map_of cs s = None"
  by (metis atLeastLessThan_iff image_set leD map_of_eq_None_iff set_upt)

lemma takeWhile_dropWhile_len:
  "length (takeWhile P xs) + length (dropWhile P xs) = length xs"
  by (metis length_append takeWhile_dropWhile_id)

subsection \<open>Arrays with designated initialisers\<close>

text \<open>An array with designated initialisers: the entries that are not named are zero.\<close>

definition designated :: "nat \<Rightarrow> 'a \<Rightarrow> (nat \<times> 'a) list \<Rightarrow> 'a list" where
  "designated n z es = map (\<lambda>i. case map_of es i of None \<Rightarrow> z | Some v \<Rightarrow> v) [0..<n]"

lemma designated_length [simp]: "length (designated n z es) = n"
  by (simp add: designated_def)

lemma designated_nth: "i < n \<Longrightarrow> designated n z es ! i = (case map_of es i of None \<Rightarrow> z | Some v \<Rightarrow> v)"
  by (simp add: designated_def)

text \<open>
  An array declared without a size: its length is one more than the largest index the initialiser
  names.
\<close>

definition initialised_length :: "(nat \<times> 'a) list \<Rightarrow> nat" where
  "initialised_length es = foldr (\<lambda>(i, v) n. max (Suc i) n) es 0"

definition designated_unsized :: "'a \<Rightarrow> (nat \<times> 'a) list \<Rightarrow> 'a list" where
  "designated_unsized z es = designated (initialised_length es) z es"

text \<open>
  An array whose initialiser names the index of every group of entries: \<open>laid_out n gs k\<close> says that
  the groups lie one after the other from index \<open>n\<close> up to \<open>k\<close>, each at the index it names.
\<close>

fun laid_out :: "nat \<Rightarrow> (nat \<times> 'a list) list \<Rightarrow> nat \<Rightarrow> bool" where
  "laid_out n [] k \<longleftrightarrow> n = k"
| "laid_out n ((i, xs) # gs) k \<longleftrightarrow> i = n \<and> laid_out (n + length xs) gs k"

lemma laid_out_append: "laid_out n gs k \<Longrightarrow> laid_out n (gs @ hs) m = laid_out k hs m"
  by (induction n gs k rule: laid_out.induct) auto

lemma laid_out_length: "laid_out n gs k \<Longrightarrow> k = n + length (concat (map snd gs))"
  by (induction n gs k rule: laid_out.induct) auto

lemma laid_out_segment:
  assumes "laid_out n gs k" and "(i, xs) \<in> set gs"
  shows "n \<le> i \<and> i + length xs \<le> k \<and> take (length xs) (drop (i - n) (concat (map snd gs))) = xs"
  using assms
proof (induction n gs k rule: laid_out.induct)
  case (2 n j ys gs k)
  show ?case
  proof (cases "(i, xs) = (j, ys)")
    case True
    with 2(2) laid_out_length [of "n + length ys" gs k] show ?thesis by auto
  next
    case False
    with 2 have IH: "n + length ys \<le> i" "i + length xs \<le> k"
      "take (length xs) (drop (i - (n + length ys)) (concat (map snd gs))) = xs"
      by auto
    then have "drop (i - n) (concat (map snd ((j, ys) # gs))) = drop (i - (n + length ys)) (concat (map snd gs))"
      by simp
    with IH show ?thesis by simp
  qed
qed simp

lemma laid_out_nth:
  assumes "laid_out 0 gs k" and "(i, xs) \<in> set gs" and "j < length xs"
  shows "concat (map snd gs) ! (i + j) = xs ! j"
proof -
  from laid_out_segment [OF assms(1,2)] laid_out_length [OF assms(1)]
  have s: "take (length xs) (drop i (concat (map snd gs))) = xs" "i \<le> length (concat (map snd gs))" by auto
  then show ?thesis using assms(3) by (metis nth_drop nth_take)
qed

lemma laid_out_keys: "laid_out n gs k \<Longrightarrow> (i, xs) \<in> set gs \<Longrightarrow> n \<le> i"
  using laid_out_segment by blast

lemma laid_out_distinct:
  "laid_out n gs k \<Longrightarrow> list_all (\<lambda>(i, xs). xs \<noteq> []) gs \<Longrightarrow> distinct (map fst gs)"
proof (induction n gs k rule: laid_out.induct)
  case (2 n i xs gs k)
  then have "i < j" if "(j, ys) \<in> set gs" for j ys
    using laid_out_keys [of "n + length xs" gs k j ys] that by (cases xs) auto
  with 2 show ?case by fastforce
qed simp

lemma successively_distinct: "successively (<) xs \<Longrightarrow> distinct (xs :: nat list)"
  by (simp add: successively_conv_sorted_wrt strict_sorted_iff)

subsection \<open>Unsigned 32-bit arithmetic\<close>

lemma unat_inc32: "unat w + 1 < 2 ^ 32 \<Longrightarrow> unat (w + 1 :: 32 word) = Suc (unat w)"
  by (simp add: unat_word_ariths)

lemma unat_dec32: "0 < unat w \<Longrightarrow> unat (w - 1 :: 32 word) = unat w - 1"
  by (simp add: unat_minus_one unat_gt_0)

lemma unat_eq_1: "unat w = 1 \<longleftrightarrow> w = (1 :: 32 word)"
  by (simp add: word_unat_eq_iff)

lemma unat_of_nat32: "n < 2 ^ 32 \<Longrightarrow> unat (of_nat n :: 32 word) = n"
  by (simp add: unat_of_nat)

lemma unat_eqI32: "w = of_nat n \<Longrightarrow> n < 2 ^ 32 \<Longrightarrow> unat (w :: 32 word) = n"
  using unat_of_nat32 by blast

lemma unat_add32: "unat a + unat b < 2 ^ 32 \<Longrightarrow> unat (a + b :: 32 word) = unat a + unat b"
  by (simp add: unat_word_ariths)

lemma unat_sub32: "unat b \<le> unat a \<Longrightarrow> unat (a - b :: 32 word) = unat a - unat b"
  by (simp add: unat_sub word_le_nat_alt)

lemma unat_add_sub32:
  assumes "unat c \<le> unat a + unat b" and "unat a + unat b - unat c < 2 ^ 32"
  shows "unat (a + b - c :: 32 word) = unat a + unat b - unat c"
  using assms by (intro unat_eqI32) (simp_all add: of_nat_diff)

lemma unat_less_32: "unat (w :: 32 word) < 2 ^ 32"
  by (rule order.strict_trans2 [OF unsigned_less]) simp

lemma half_less: "1 < (n :: 32 word) \<Longrightarrow> unat (n - n div 2) < unat n"
proof -
  assume "1 < n"
  then have "1 < unat n" by (simp add: word_less_nat_alt)
  then show ?thesis by (simp add: unat_sub_if' unat_div)
qed

lemma unat_half: "unat ((n :: 32 word) div 2) = unat n div 2" "unat (n - n div 2) = unat n - unat n div 2"
  by (simp_all add: unat_div unat_sub_if')

end
