(* ===== verification/TSLexer.thy ===== *)
theory TSLexer
  imports Prelude
begin

text \<open>
  The lexer interface of \<^verbatim>\<open>tree_sitter/parser.h\<close>: the struct \<^verbatim>\<open>TSLexer\<close>, its function pointers
  and the lexer macros. The functions behind the pointers belong to the tree-sitter runtime,
  which is not part of the repository: they are a parameter of every definition that calls them
  (the record \<open>TSLexer_ops\<close>), and the locale \<open>tslexer\<close> states the documented behaviour the
  callers rely on. The theory ends with an in-memory lexer that satisfies these laws.
\<close>

subsection \<open>The struct and its function pointers\<close>

text \<open>The two symbols every grammar has: the end of the input and the error node.\<close>

abbreviation (input) ts_builtin_sym_end :: TSSymbol where "ts_builtin_sym_end \<equiv> 0"
abbreviation (input) ts_builtin_sym_error :: TSSymbol where "ts_builtin_sym_error \<equiv> 65535"

text \<open>
  The runtime embeds \<^verbatim>\<open>TSLexer\<close> as the first member of a larger struct; the extension slot of
  the record plays that part. A C struct of function pointers that take the struct itself has no
  counterpart as one HOL record, so the pointers are a record of their own.
\<close>

record TSLexer =
  lookahead :: code_point
  result_symbol :: TSSymbol

record 'l TSLexer_ops =
  advance_fn :: "'l \<Rightarrow> bool \<Rightarrow> 'l"
  mark_end_fn :: "'l \<Rightarrow> 'l"
  get_column_fn :: "'l \<Rightarrow> 32 word"
  is_at_included_range_start_fn :: "'l \<Rightarrow> bool"
  eof_fn :: "'l \<Rightarrow> bool"

subsection \<open>The documented behaviour of the runtime\<close>

text \<open>
  Three observations of a lexer: \<open>rest\<close> is the input from the current position on, \<open>start\<close> the
  input from the start of the token on, \<open>mark\<close> the input after the end of the token as last
  marked (\<open>None\<close> before the first \<^verbatim>\<open>mark_end\<close>). \<open>valid\<close> says that the public fields agree with
  the runtime's private state; every operation keeps it. The laws are those of the tree-sitter
  documentation: \<^verbatim>\<open>lookahead\<close> is the next code point, and 0 at the end of the input (a NUL in
  the file reads as 0 too, which is why \<^verbatim>\<open>eof\<close> exists); \<^verbatim>\<open>advance\<close> moves one code point and, with
  \<^verbatim>\<open>skip\<close>, treats it as white space before the token; \<^verbatim>\<open>mark_end\<close> marks the end of the token.
\<close>

locale tslexer =
  fixes ops :: "'p TSLexer_scheme TSLexer_ops"
    and valid :: "'p TSLexer_scheme \<Rightarrow> bool"
    and rest :: "'p TSLexer_scheme \<Rightarrow> code_point list"
    and start :: "'p TSLexer_scheme \<Rightarrow> code_point list"
    and mark :: "'p TSLexer_scheme \<Rightarrow> code_point list option"
  assumes lookahead_rest: "valid l \<Longrightarrow> lookahead l = (case rest l of [] \<Rightarrow> 0 | c # _ \<Rightarrow> c)"
    and eof_rest: "valid l \<Longrightarrow> eof_fn ops l \<longleftrightarrow> rest l = []"
    and advance_valid [simp]: "valid l \<Longrightarrow> valid (advance_fn ops l skip)"
    and advance_rest [simp]: "valid l \<Longrightarrow> rest (advance_fn ops l skip) = tl (rest l)"
    and advance_start [simp]:
      "valid l \<Longrightarrow> start (advance_fn ops l skip) = (if skip then tl (rest l) else start l)"
    and advance_mark [simp]: "valid l \<Longrightarrow> mark (advance_fn ops l skip) = mark l"
    and advance_symbol [simp]: "result_symbol (advance_fn ops l skip) = result_symbol l"
    and mark_end_valid [simp]: "valid l \<Longrightarrow> valid (mark_end_fn ops l)"
    and mark_end_rest [simp]: "rest (mark_end_fn ops l) = rest l"
    and mark_end_start [simp]: "start (mark_end_fn ops l) = start l"
    and mark_end_mark [simp]: "valid l \<Longrightarrow> mark (mark_end_fn ops l) = Some (rest l)"
    and mark_end_symbol [simp]: "result_symbol (mark_end_fn ops l) = result_symbol l"
    and symbol_valid [simp]: "valid (l\<lparr>result_symbol := s\<rparr>) = valid l"
    and symbol_rest [simp]: "rest (l\<lparr>result_symbol := s\<rparr>) = rest l"
    and symbol_start [simp]: "start (l\<lparr>result_symbol := s\<rparr>) = start l"
    and symbol_mark [simp]: "mark (l\<lparr>result_symbol := s\<rparr>) = mark l"
begin

lemma lookahead_Nil: "valid l \<Longrightarrow> rest l = [] \<Longrightarrow> lookahead l = 0"
  by (simp add: lookahead_rest)

lemma lookahead_Cons: "valid l \<Longrightarrow> rest l = c # cs \<Longrightarrow> lookahead l = c"
  by (simp add: lookahead_rest)

lemma lookahead_nonzero:
  "valid l \<Longrightarrow> lookahead l \<noteq> 0 \<Longrightarrow> rest l = lookahead l # tl (rest l)"
  by (auto simp: lookahead_rest split: list.splits)

end

subsection \<open>An in-memory lexer\<close>

text \<open>
  A lexer over a buffer of code points: the fields after the embedded \<^verbatim>\<open>TSLexer\<close> are the input,
  the current position, the start of the token and its marked end. It realises the laws above,
  so theorems that assume them speak about something that runs.
\<close>

record buf_lexer = TSLexer +
  buf_input :: "code_point list"
  buf_pos :: nat
  buf_start :: nat
  buf_end :: "nat option"

definition buf_peek :: "code_point list \<Rightarrow> nat \<Rightarrow> code_point" where
  "buf_peek inp i = (if i < length inp then inp ! i else 0)"

definition buf_advance :: "buf_lexer \<Rightarrow> bool \<Rightarrow> buf_lexer" where
  "buf_advance l skip =
     (let i = min (Suc (buf_pos l)) (length (buf_input l)) in
      l\<lparr>lookahead := buf_peek (buf_input l) i, buf_pos := i,
        buf_start := (if skip then i else buf_start l)\<rparr>)"

definition buf_ops :: "buf_lexer TSLexer_ops" where
  "buf_ops = \<lparr>advance_fn = buf_advance,
     mark_end_fn = (\<lambda>l. l\<lparr>buf_end := Some (buf_pos l)\<rparr>),
     get_column_fn = (\<lambda>l. of_nat (buf_pos l)),
     is_at_included_range_start_fn = (\<lambda>l. buf_pos l = 0),
     eof_fn = (\<lambda>l. length (buf_input l) \<le> buf_pos l)\<rparr>"

definition buf_valid :: "buf_lexer \<Rightarrow> bool" where
  "buf_valid l \<longleftrightarrow> lookahead l = buf_peek (buf_input l) (buf_pos l)"

definition buf_rest :: "buf_lexer \<Rightarrow> code_point list" where
  "buf_rest l = drop (buf_pos l) (buf_input l)"

definition buf_from :: "buf_lexer \<Rightarrow> code_point list" where
  "buf_from l = drop (buf_start l) (buf_input l)"

definition buf_mark :: "buf_lexer \<Rightarrow> code_point list option" where
  "buf_mark l = map_option (\<lambda>i. drop i (buf_input l)) (buf_end l)"

definition buf_init :: "code_point list \<Rightarrow> buf_lexer" where
  "buf_init inp = \<lparr>lookahead = buf_peek inp 0, result_symbol = 0, buf_input = inp,
     buf_pos = 0, buf_start = 0, buf_end = None\<rparr>"

lemmas buf_defs = buf_advance_def buf_ops_def buf_valid_def buf_rest_def
  buf_from_def buf_mark_def buf_init_def

lemma buf_peek_drop: "buf_peek inp i = (case drop i inp of [] \<Rightarrow> 0 | c # _ \<Rightarrow> c)"
proof (cases "i < length inp")
  case True
  then show ?thesis by (simp add: buf_peek_def flip: Cons_nth_drop_Suc)
qed (simp add: buf_peek_def)

lemma drop_min_Suc: "drop (min (Suc i) (length xs)) xs = tl (drop i xs)"
  by (cases "i < length xs") (simp_all add: drop_Suc tl_drop min_def)

interpretation buf: tslexer buf_ops buf_valid buf_rest buf_from buf_mark
  by unfold_locales
    (simp_all add: buf_defs buf_peek_drop drop_min_Suc Let_def)

lemma buf_init_simps [simp]:
  "buf_valid (buf_init inp)" "buf_rest (buf_init inp) = inp" "buf_from (buf_init inp) = inp"
  "buf_mark (buf_init inp) = None" "result_symbol (buf_init inp) = 0"
  by (simp_all add: buf_defs)

end
