(* ===== verification/Dart_Symbols.thy ===== *)
theory Dart_Symbols
  imports TSLexer
begin

text \<open>
  The constants of the Dart grammar: the sizes of the tables and the enumeration \<^verbatim>\<open>ts_symbol_identifiers\<close> of \<^verbatim>\<open>parser.c\<close>.
\<close>

subsection \<open>The sizes of the tables\<close>

abbreviation (input) LANGUAGE_VERSION :: nat where "LANGUAGE_VERSION \<equiv> 14"
abbreviation (input) STATE_COUNT :: nat where "STATE_COUNT \<equiv> 3577"
abbreviation (input) LARGE_STATE_COUNT :: nat where "LARGE_STATE_COUNT \<equiv> 494"
abbreviation (input) SYMBOL_COUNT :: nat where "SYMBOL_COUNT \<equiv> 524"
abbreviation (input) ALIAS_COUNT :: nat where "ALIAS_COUNT \<equiv> 1"
abbreviation (input) TOKEN_COUNT :: nat where "TOKEN_COUNT \<equiv> 163"
abbreviation (input) EXTERNAL_TOKEN_COUNT :: nat where "EXTERNAL_TOKEN_COUNT \<equiv> 7"
abbreviation (input) FIELD_COUNT :: nat where "FIELD_COUNT \<equiv> 20"
abbreviation (input) MAX_ALIAS_SEQUENCE_LENGTH :: nat where "MAX_ALIAS_SEQUENCE_LENGTH \<equiv> 10"
abbreviation (input) PRODUCTION_ID_COUNT :: nat where "PRODUCTION_ID_COUNT \<equiv> 98"

subsection \<open>Symbols\<close>

abbreviation (input) sym_identifier :: TSSymbol where "sym_identifier \<equiv> 1"
abbreviation (input) anon_sym_POUND :: TSSymbol where "anon_sym_POUND \<equiv> 2"
abbreviation (input) sym_decimal_integer_literal :: TSSymbol where "sym_decimal_integer_literal \<equiv> 3"
abbreviation (input) sym_hex_integer_literal :: TSSymbol where "sym_hex_integer_literal \<equiv> 4"
abbreviation (input) sym_decimal_floating_point_literal :: TSSymbol where "sym_decimal_floating_point_literal \<equiv> 5"
abbreviation (input) anon_sym_true :: TSSymbol where "anon_sym_true \<equiv> 6"
abbreviation (input) anon_sym_false :: TSSymbol where "anon_sym_false \<equiv> 7"
abbreviation (input) anon_sym_DQUOTE :: TSSymbol where "anon_sym_DQUOTE \<equiv> 8"
abbreviation (input) anon_sym_SQUOTE :: TSSymbol where "anon_sym_SQUOTE \<equiv> 9"
abbreviation (input) anon_sym_DQUOTE_DQUOTE_DQUOTE :: TSSymbol where "anon_sym_DQUOTE_DQUOTE_DQUOTE \<equiv> 10"
abbreviation (input) anon_sym_SQUOTE_SQUOTE_SQUOTE :: TSSymbol where "anon_sym_SQUOTE_SQUOTE_SQUOTE \<equiv> 11"
abbreviation (input) anon_sym_r_DQUOTE :: TSSymbol where "anon_sym_r_DQUOTE \<equiv> 12"
abbreviation (input) anon_sym_DOLLAR :: TSSymbol where "anon_sym_DOLLAR \<equiv> 13"
abbreviation (input) anon_sym_r_SQUOTE :: TSSymbol where "anon_sym_r_SQUOTE \<equiv> 14"
abbreviation (input) anon_sym_r_DQUOTE_DQUOTE_DQUOTE :: TSSymbol where "anon_sym_r_DQUOTE_DQUOTE_DQUOTE \<equiv> 15"
abbreviation (input) anon_sym_r_SQUOTE_SQUOTE_SQUOTE :: TSSymbol where "anon_sym_r_SQUOTE_SQUOTE_SQUOTE \<equiv> 16"
abbreviation (input) anon_sym_LBRACE :: TSSymbol where "anon_sym_LBRACE \<equiv> 17"
abbreviation (input) anon_sym_RBRACE :: TSSymbol where "anon_sym_RBRACE \<equiv> 18"
abbreviation (input) aux_sym__sub_string_test_token1 :: TSSymbol where "aux_sym__sub_string_test_token1 \<equiv> 19"
abbreviation (input) sym__unused_escape_sequence :: TSSymbol where "sym__unused_escape_sequence \<equiv> 20"
abbreviation (input) anon_sym_LBRACK :: TSSymbol where "anon_sym_LBRACK \<equiv> 21"
abbreviation (input) anon_sym_COMMA :: TSSymbol where "anon_sym_COMMA \<equiv> 22"
abbreviation (input) anon_sym_RBRACK :: TSSymbol where "anon_sym_RBRACK \<equiv> 23"
abbreviation (input) anon_sym_COLON :: TSSymbol where "anon_sym_COLON \<equiv> 24"
abbreviation (input) anon_sym_null :: TSSymbol where "anon_sym_null \<equiv> 25"
abbreviation (input) anon_sym_LPAREN :: TSSymbol where "anon_sym_LPAREN \<equiv> 26"
abbreviation (input) anon_sym_RPAREN :: TSSymbol where "anon_sym_RPAREN \<equiv> 27"
abbreviation (input) anon_sym_throw :: TSSymbol where "anon_sym_throw \<equiv> 28"
abbreviation (input) anon_sym_EQ :: TSSymbol where "anon_sym_EQ \<equiv> 29"
abbreviation (input) anon_sym_PLUS_EQ :: TSSymbol where "anon_sym_PLUS_EQ \<equiv> 30"
abbreviation (input) anon_sym_DASH_EQ :: TSSymbol where "anon_sym_DASH_EQ \<equiv> 31"
abbreviation (input) anon_sym_STAR_EQ :: TSSymbol where "anon_sym_STAR_EQ \<equiv> 32"
abbreviation (input) anon_sym_SLASH_EQ :: TSSymbol where "anon_sym_SLASH_EQ \<equiv> 33"
abbreviation (input) anon_sym_PERCENT_EQ :: TSSymbol where "anon_sym_PERCENT_EQ \<equiv> 34"
abbreviation (input) anon_sym_TILDE_SLASH_EQ :: TSSymbol where "anon_sym_TILDE_SLASH_EQ \<equiv> 35"
abbreviation (input) anon_sym_LT_LT_EQ :: TSSymbol where "anon_sym_LT_LT_EQ \<equiv> 36"
abbreviation (input) anon_sym_GT_GT_EQ :: TSSymbol where "anon_sym_GT_GT_EQ \<equiv> 37"
abbreviation (input) anon_sym_GT_GT_GT_EQ :: TSSymbol where "anon_sym_GT_GT_GT_EQ \<equiv> 38"
abbreviation (input) anon_sym_AMP_EQ :: TSSymbol where "anon_sym_AMP_EQ \<equiv> 39"
abbreviation (input) anon_sym_CARET_EQ :: TSSymbol where "anon_sym_CARET_EQ \<equiv> 40"
abbreviation (input) anon_sym_PIPE_EQ :: TSSymbol where "anon_sym_PIPE_EQ \<equiv> 41"
abbreviation (input) anon_sym_QMARK_QMARK_EQ :: TSSymbol where "anon_sym_QMARK_QMARK_EQ \<equiv> 42"
abbreviation (input) anon_sym_QMARK_QMARK :: TSSymbol where "anon_sym_QMARK_QMARK \<equiv> 43"
abbreviation (input) anon_sym_QMARK :: TSSymbol where "anon_sym_QMARK \<equiv> 44"
abbreviation (input) sym_equality_operator :: TSSymbol where "sym_equality_operator \<equiv> 45"
abbreviation (input) anon_sym_LT :: TSSymbol where "anon_sym_LT \<equiv> 46"
abbreviation (input) anon_sym_GT :: TSSymbol where "anon_sym_GT \<equiv> 47"
abbreviation (input) anon_sym_LT_EQ :: TSSymbol where "anon_sym_LT_EQ \<equiv> 48"
abbreviation (input) anon_sym_GT_EQ :: TSSymbol where "anon_sym_GT_EQ \<equiv> 49"
abbreviation (input) anon_sym_PIPE :: TSSymbol where "anon_sym_PIPE \<equiv> 50"
abbreviation (input) anon_sym_CARET :: TSSymbol where "anon_sym_CARET \<equiv> 51"
abbreviation (input) anon_sym_AMP :: TSSymbol where "anon_sym_AMP \<equiv> 52"
abbreviation (input) anon_sym_LT_LT :: TSSymbol where "anon_sym_LT_LT \<equiv> 53"
abbreviation (input) anon_sym_GT_GT :: TSSymbol where "anon_sym_GT_GT \<equiv> 54"
abbreviation (input) anon_sym_GT_GT_GT :: TSSymbol where "anon_sym_GT_GT_GT \<equiv> 55"
abbreviation (input) sym__additive_operator :: TSSymbol where "sym__additive_operator \<equiv> 56"
abbreviation (input) anon_sym_STAR :: TSSymbol where "anon_sym_STAR \<equiv> 57"
abbreviation (input) anon_sym_SLASH :: TSSymbol where "anon_sym_SLASH \<equiv> 58"
abbreviation (input) anon_sym_PERCENT :: TSSymbol where "anon_sym_PERCENT \<equiv> 59"
abbreviation (input) anon_sym_TILDE_SLASH :: TSSymbol where "anon_sym_TILDE_SLASH \<equiv> 60"
abbreviation (input) sym_increment_operator :: TSSymbol where "sym_increment_operator \<equiv> 61"
abbreviation (input) anon_sym_DOT_DOT_DOT :: TSSymbol where "anon_sym_DOT_DOT_DOT \<equiv> 62"
abbreviation (input) sym_minus_operator :: TSSymbol where "sym_minus_operator \<equiv> 63"
abbreviation (input) anon_sym_BANG :: TSSymbol where "anon_sym_BANG \<equiv> 64"
abbreviation (input) anon_sym_TILDE :: TSSymbol where "anon_sym_TILDE \<equiv> 65"
abbreviation (input) anon_sym_await :: TSSymbol where "anon_sym_await \<equiv> 66"
abbreviation (input) anon_sym_is :: TSSymbol where "anon_sym_is \<equiv> 67"
abbreviation (input) anon_sym_as :: TSSymbol where "anon_sym_as \<equiv> 68"
abbreviation (input) anon_sym_DOT :: TSSymbol where "anon_sym_DOT \<equiv> 69"
abbreviation (input) anon_sym_QMARK_DOT :: TSSymbol where "anon_sym_QMARK_DOT \<equiv> 70"
abbreviation (input) anon_sym_DOT_DOT :: TSSymbol where "anon_sym_DOT_DOT \<equiv> 71"
abbreviation (input) anon_sym_QMARK_DOT_DOT :: TSSymbol where "anon_sym_QMARK_DOT_DOT \<equiv> 72"
abbreviation (input) anon_sym_extends :: TSSymbol where "anon_sym_extends \<equiv> 73"
abbreviation (input) anon_sym_SEMI :: TSSymbol where "anon_sym_SEMI \<equiv> 74"
abbreviation (input) anon_sym_switch :: TSSymbol where "anon_sym_switch \<equiv> 75"
abbreviation (input) anon_sym_EQ_GT :: TSSymbol where "anon_sym_EQ_GT \<equiv> 76"
abbreviation (input) anon_sym_when :: TSSymbol where "anon_sym_when \<equiv> 77"
abbreviation (input) anon_sym_default :: TSSymbol where "anon_sym_default \<equiv> 78"
abbreviation (input) anon_sym_do :: TSSymbol where "anon_sym_do \<equiv> 79"
abbreviation (input) anon_sym_while :: TSSymbol where "anon_sym_while \<equiv> 80"
abbreviation (input) anon_sym_continue :: TSSymbol where "anon_sym_continue \<equiv> 81"
abbreviation (input) anon_sym_yield :: TSSymbol where "anon_sym_yield \<equiv> 82"
abbreviation (input) anon_sym_return :: TSSymbol where "anon_sym_return \<equiv> 83"
abbreviation (input) anon_sym_on :: TSSymbol where "anon_sym_on \<equiv> 84"
abbreviation (input) anon_sym_try :: TSSymbol where "anon_sym_try \<equiv> 85"
abbreviation (input) anon_sym_catch :: TSSymbol where "anon_sym_catch \<equiv> 86"
abbreviation (input) anon_sym_finally :: TSSymbol where "anon_sym_finally \<equiv> 87"
abbreviation (input) anon_sym_if :: TSSymbol where "anon_sym_if \<equiv> 88"
abbreviation (input) anon_sym_case :: TSSymbol where "anon_sym_case \<equiv> 89"
abbreviation (input) anon_sym_else :: TSSymbol where "anon_sym_else \<equiv> 90"
abbreviation (input) anon_sym_for :: TSSymbol where "anon_sym_for \<equiv> 91"
abbreviation (input) anon_sym_in :: TSSymbol where "anon_sym_in \<equiv> 92"
abbreviation (input) anon_sym_AT :: TSSymbol where "anon_sym_AT \<equiv> 93"
abbreviation (input) anon_sym_part :: TSSymbol where "anon_sym_part \<equiv> 94"
abbreviation (input) anon_sym_EQ_EQ :: TSSymbol where "anon_sym_EQ_EQ \<equiv> 95"
abbreviation (input) anon_sym_show :: TSSymbol where "anon_sym_show \<equiv> 96"
abbreviation (input) anon_sym_hide :: TSSymbol where "anon_sym_hide \<equiv> 97"
abbreviation (input) anon_sym_enum :: TSSymbol where "anon_sym_enum \<equiv> 98"
abbreviation (input) anon_sym_final :: TSSymbol where "anon_sym_final \<equiv> 99"
abbreviation (input) anon_sym_inline :: TSSymbol where "anon_sym_inline \<equiv> 100"
abbreviation (input) anon_sym_class :: TSSymbol where "anon_sym_class \<equiv> 101"
abbreviation (input) anon_sym_extension :: TSSymbol where "anon_sym_extension \<equiv> 102"
abbreviation (input) anon_sym_with :: TSSymbol where "anon_sym_with \<equiv> 103"
abbreviation (input) anon_sym_LBRACK_RBRACK :: TSSymbol where "anon_sym_LBRACK_RBRACK \<equiv> 104"
abbreviation (input) anon_sym_LBRACK_RBRACK_EQ :: TSSymbol where "anon_sym_LBRACK_RBRACK_EQ \<equiv> 105"
abbreviation (input) sym_floating_point_type :: TSSymbol where "sym_floating_point_type \<equiv> 106"
abbreviation (input) anon_sym_bool :: TSSymbol where "anon_sym_bool \<equiv> 107"
abbreviation (input) sym_void_type :: TSSymbol where "sym_void_type \<equiv> 108"
abbreviation (input) anon_sym_var :: TSSymbol where "anon_sym_var \<equiv> 109"
abbreviation (input) anon_sym_async :: TSSymbol where "anon_sym_async \<equiv> 110"
abbreviation (input) anon_sym_async_STAR :: TSSymbol where "anon_sym_async_STAR \<equiv> 111"
abbreviation (input) anon_sym_sync_STAR :: TSSymbol where "anon_sym_sync_STAR \<equiv> 112"
abbreviation (input) anon_sym_POUND_BANG :: TSSymbol where "anon_sym_POUND_BANG \<equiv> 113"
abbreviation (input) aux_sym_script_tag_token1 :: TSSymbol where "aux_sym_script_tag_token1 \<equiv> 114"
abbreviation (input) anon_sym_LF :: TSSymbol where "anon_sym_LF \<equiv> 115"
abbreviation (input) anon_sym_library :: TSSymbol where "anon_sym_library \<equiv> 116"
abbreviation (input) sym_break_builtin :: TSSymbol where "sym_break_builtin \<equiv> 117"
abbreviation (input) sym_assert_builtin :: TSSymbol where "sym_assert_builtin \<equiv> 118"
abbreviation (input) sym_rethrow_builtin :: TSSymbol where "sym_rethrow_builtin \<equiv> 119"
abbreviation (input) sym_part_of_builtin :: TSSymbol where "sym_part_of_builtin \<equiv> 120"
abbreviation (input) anon_sym_covariant :: TSSymbol where "anon_sym_covariant \<equiv> 121"
abbreviation (input) anon_sym_deferred :: TSSymbol where "anon_sym_deferred \<equiv> 122"
abbreviation (input) anon_sym_dynamic :: TSSymbol where "anon_sym_dynamic \<equiv> 123"
abbreviation (input) anon_sym_export :: TSSymbol where "anon_sym_export \<equiv> 124"
abbreviation (input) anon_sym_factory :: TSSymbol where "anon_sym_factory \<equiv> 125"
abbreviation (input) anon_sym_Function :: TSSymbol where "anon_sym_Function \<equiv> 126"
abbreviation (input) anon_sym_get :: TSSymbol where "anon_sym_get \<equiv> 127"
abbreviation (input) anon_sym_native :: TSSymbol where "anon_sym_native \<equiv> 128"
abbreviation (input) anon_sym_implements :: TSSymbol where "anon_sym_implements \<equiv> 129"
abbreviation (input) anon_sym_import :: TSSymbol where "anon_sym_import \<equiv> 130"
abbreviation (input) anon_sym_interface :: TSSymbol where "anon_sym_interface \<equiv> 131"
abbreviation (input) anon_sym_base :: TSSymbol where "anon_sym_base \<equiv> 132"
abbreviation (input) anon_sym_abstract :: TSSymbol where "anon_sym_abstract \<equiv> 133"
abbreviation (input) anon_sym_sealed :: TSSymbol where "anon_sym_sealed \<equiv> 134"
abbreviation (input) anon_sym_operator :: TSSymbol where "anon_sym_operator \<equiv> 135"
abbreviation (input) anon_sym_mixin :: TSSymbol where "anon_sym_mixin \<equiv> 136"
abbreviation (input) anon_sym_required :: TSSymbol where "anon_sym_required \<equiv> 137"
abbreviation (input) anon_sym_set :: TSSymbol where "anon_sym_set \<equiv> 138"
abbreviation (input) anon_sym_static :: TSSymbol where "anon_sym_static \<equiv> 139"
abbreviation (input) anon_sym_typedef :: TSSymbol where "anon_sym_typedef \<equiv> 140"
abbreviation (input) anon_sym_new :: TSSymbol where "anon_sym_new \<equiv> 141"
abbreviation (input) anon_sym_AMP_AMP :: TSSymbol where "anon_sym_AMP_AMP \<equiv> 142"
abbreviation (input) anon_sym_PIPE_PIPE :: TSSymbol where "anon_sym_PIPE_PIPE \<equiv> 143"
abbreviation (input) sym_const_builtin :: TSSymbol where "sym_const_builtin \<equiv> 144"
abbreviation (input) anon_sym_late :: TSSymbol where "anon_sym_late \<equiv> 145"
abbreviation (input) anon_sym_external :: TSSymbol where "anon_sym_external \<equiv> 146"
abbreviation (input) anon_sym_this :: TSSymbol where "anon_sym_this \<equiv> 147"
abbreviation (input) anon_sym_super :: TSSymbol where "anon_sym_super \<equiv> 148"
abbreviation (input) sym_identifier_dollar_escaped :: TSSymbol where "sym_identifier_dollar_escaped \<equiv> 149"
abbreviation (input) anon_sym_SLASH_SLASH :: TSSymbol where "anon_sym_SLASH_SLASH \<equiv> 150"
abbreviation (input) aux_sym_comment_token1 :: TSSymbol where "aux_sym_comment_token1 \<equiv> 151"
abbreviation (input) anon_sym_SLASH_STAR :: TSSymbol where "anon_sym_SLASH_STAR \<equiv> 152"
abbreviation (input) aux_sym_comment_token2 :: TSSymbol where "aux_sym_comment_token2 \<equiv> 153"
abbreviation (input) anon_sym_SLASH_SLASH_SLASH :: TSSymbol where "anon_sym_SLASH_SLASH_SLASH \<equiv> 154"
abbreviation (input) aux_sym_documentation_comment_token1 :: TSSymbol where "aux_sym_documentation_comment_token1 \<equiv> 155"
abbreviation (input) sym__template_chars_double :: TSSymbol where "sym__template_chars_double \<equiv> 156"
abbreviation (input) sym__template_chars_single :: TSSymbol where "sym__template_chars_single \<equiv> 157"
abbreviation (input) sym__template_chars_double_single :: TSSymbol where "sym__template_chars_double_single \<equiv> 158"
abbreviation (input) sym__template_chars_single_single :: TSSymbol where "sym__template_chars_single_single \<equiv> 159"
abbreviation (input) sym__template_chars_raw_slash :: TSSymbol where "sym__template_chars_raw_slash \<equiv> 160"
abbreviation (input) sym__block_comment :: TSSymbol where "sym__block_comment \<equiv> 161"
abbreviation (input) sym__documentation_block_comment :: TSSymbol where "sym__documentation_block_comment \<equiv> 162"
abbreviation (input) sym_program :: TSSymbol where "sym_program \<equiv> 163"
abbreviation (input) sym__top_level_definition :: TSSymbol where "sym__top_level_definition \<equiv> 164"
abbreviation (input) sym__bool_literal :: TSSymbol where "sym__bool_literal \<equiv> 165"
abbreviation (input) sym__numeric_literal :: TSSymbol where "sym__numeric_literal \<equiv> 166"
abbreviation (input) sym__literal :: TSSymbol where "sym__literal \<equiv> 167"
abbreviation (input) sym_symbol_literal :: TSSymbol where "sym_symbol_literal \<equiv> 168"
abbreviation (input) sym_true :: TSSymbol where "sym_true \<equiv> 169"
abbreviation (input) sym_false :: TSSymbol where "sym_false \<equiv> 170"
abbreviation (input) sym_string_literal :: TSSymbol where "sym_string_literal \<equiv> 171"
abbreviation (input) sym__string_literal_double_quotes :: TSSymbol where "sym__string_literal_double_quotes \<equiv> 172"
abbreviation (input) sym__string_literal_single_quotes :: TSSymbol where "sym__string_literal_single_quotes \<equiv> 173"
abbreviation (input) sym__string_literal_double_quotes_multiple :: TSSymbol where "sym__string_literal_double_quotes_multiple \<equiv> 174"
abbreviation (input) sym__string_literal_single_quotes_multiple :: TSSymbol where "sym__string_literal_single_quotes_multiple \<equiv> 175"
abbreviation (input) sym__raw_string_literal_double_quotes :: TSSymbol where "sym__raw_string_literal_double_quotes \<equiv> 176"
abbreviation (input) sym__raw_string_literal_single_quotes :: TSSymbol where "sym__raw_string_literal_single_quotes \<equiv> 177"
abbreviation (input) sym__raw_string_literal_double_quotes_multiple :: TSSymbol where "sym__raw_string_literal_double_quotes_multiple \<equiv> 178"
abbreviation (input) sym__raw_string_literal_single_quotes_multiple :: TSSymbol where "sym__raw_string_literal_single_quotes_multiple \<equiv> 179"
abbreviation (input) sym_template_substitution :: TSSymbol where "sym_template_substitution \<equiv> 180"
abbreviation (input) sym__sub_string_test :: TSSymbol where "sym__sub_string_test \<equiv> 181"
abbreviation (input) sym_escape_sequence :: TSSymbol where "sym_escape_sequence \<equiv> 182"
abbreviation (input) sym_list_literal :: TSSymbol where "sym_list_literal \<equiv> 183"
abbreviation (input) sym_set_or_map_literal :: TSSymbol where "sym_set_or_map_literal \<equiv> 184"
abbreviation (input) sym_pair :: TSSymbol where "sym_pair \<equiv> 185"
abbreviation (input) sym__element :: TSSymbol where "sym__element \<equiv> 186"
abbreviation (input) sym_null_literal :: TSSymbol where "sym_null_literal \<equiv> 187"
abbreviation (input) sym_record_literal :: TSSymbol where "sym_record_literal \<equiv> 188"
abbreviation (input) sym__record_literal_no_const :: TSSymbol where "sym__record_literal_no_const \<equiv> 189"
abbreviation (input) sym_record_field :: TSSymbol where "sym_record_field \<equiv> 190"
abbreviation (input) sym__expression :: TSSymbol where "sym__expression \<equiv> 191"
abbreviation (input) sym__expression_without_cascade :: TSSymbol where "sym__expression_without_cascade \<equiv> 192"
abbreviation (input) sym__real_expression :: TSSymbol where "sym__real_expression \<equiv> 193"
abbreviation (input) sym_throw_expression :: TSSymbol where "sym_throw_expression \<equiv> 194"
abbreviation (input) sym_throw_expression_without_cascade :: TSSymbol where "sym_throw_expression_without_cascade \<equiv> 195"
abbreviation (input) sym_rethrow_expression :: TSSymbol where "sym_rethrow_expression \<equiv> 196"
abbreviation (input) sym_assignment_expression :: TSSymbol where "sym_assignment_expression \<equiv> 197"
abbreviation (input) sym_assignment_expression_without_cascade :: TSSymbol where "sym_assignment_expression_without_cascade \<equiv> 198"
abbreviation (input) sym_assignable_expression :: TSSymbol where "sym_assignable_expression \<equiv> 199"
abbreviation (input) sym__assignable_selector_part :: TSSymbol where "sym__assignable_selector_part \<equiv> 200"
abbreviation (input) sym__assignment_operator :: TSSymbol where "sym__assignment_operator \<equiv> 201"
abbreviation (input) sym_lambda_expression :: TSSymbol where "sym_lambda_expression \<equiv> 202"
abbreviation (input) sym_function_expression :: TSSymbol where "sym_function_expression \<equiv> 203"
abbreviation (input) sym_if_null_expression :: TSSymbol where "sym_if_null_expression \<equiv> 204"
abbreviation (input) aux_sym__if_null_expression :: TSSymbol where "aux_sym__if_null_expression \<equiv> 205"
abbreviation (input) sym_conditional_expression :: TSSymbol where "sym_conditional_expression \<equiv> 206"
abbreviation (input) sym_logical_or_expression :: TSSymbol where "sym_logical_or_expression \<equiv> 207"
abbreviation (input) sym_logical_and_expression :: TSSymbol where "sym_logical_and_expression \<equiv> 208"
abbreviation (input) sym_equality_expression :: TSSymbol where "sym_equality_expression \<equiv> 209"
abbreviation (input) sym_type_cast_expression :: TSSymbol where "sym_type_cast_expression \<equiv> 210"
abbreviation (input) sym_type_test_expression :: TSSymbol where "sym_type_test_expression \<equiv> 211"
abbreviation (input) sym_relational_expression :: TSSymbol where "sym_relational_expression \<equiv> 212"
abbreviation (input) sym_relational_operator :: TSSymbol where "sym_relational_operator \<equiv> 213"
abbreviation (input) sym_bitwise_or_expression :: TSSymbol where "sym_bitwise_or_expression \<equiv> 214"
abbreviation (input) sym_bitwise_xor_expression :: TSSymbol where "sym_bitwise_xor_expression \<equiv> 215"
abbreviation (input) sym_bitwise_and_expression :: TSSymbol where "sym_bitwise_and_expression \<equiv> 216"
abbreviation (input) sym_shift_expression :: TSSymbol where "sym_shift_expression \<equiv> 217"
abbreviation (input) sym_additive_expression :: TSSymbol where "sym_additive_expression \<equiv> 218"
abbreviation (input) sym_multiplicative_expression :: TSSymbol where "sym_multiplicative_expression \<equiv> 219"
abbreviation (input) sym_bitwise_operator :: TSSymbol where "sym_bitwise_operator \<equiv> 220"
abbreviation (input) sym__bitwise_operator :: TSSymbol where "sym__bitwise_operator \<equiv> 221"
abbreviation (input) sym_shift_operator :: TSSymbol where "sym_shift_operator \<equiv> 222"
abbreviation (input) sym__shift_operator :: TSSymbol where "sym__shift_operator \<equiv> 223"
abbreviation (input) sym_additive_operator :: TSSymbol where "sym_additive_operator \<equiv> 224"
abbreviation (input) sym_multiplicative_operator :: TSSymbol where "sym_multiplicative_operator \<equiv> 225"
abbreviation (input) sym__multiplicative_operator :: TSSymbol where "sym__multiplicative_operator \<equiv> 226"
abbreviation (input) sym__unary_expression :: TSSymbol where "sym__unary_expression \<equiv> 227"
abbreviation (input) sym_unary_expression :: TSSymbol where "sym_unary_expression \<equiv> 228"
abbreviation (input) sym__postfix_expression :: TSSymbol where "sym__postfix_expression \<equiv> 229"
abbreviation (input) sym_postfix_expression :: TSSymbol where "sym_postfix_expression \<equiv> 230"
abbreviation (input) sym_postfix_operator :: TSSymbol where "sym_postfix_operator \<equiv> 231"
abbreviation (input) sym_spread_element :: TSSymbol where "sym_spread_element \<equiv> 232"
abbreviation (input) sym_selector :: TSSymbol where "sym_selector \<equiv> 233"
abbreviation (input) sym_prefix_operator :: TSSymbol where "sym_prefix_operator \<equiv> 234"
abbreviation (input) sym_negation_operator :: TSSymbol where "sym_negation_operator \<equiv> 235"
abbreviation (input) sym__exclamation_operator :: TSSymbol where "sym__exclamation_operator \<equiv> 236"
abbreviation (input) sym_tilde_operator :: TSSymbol where "sym_tilde_operator \<equiv> 237"
abbreviation (input) sym_await_expression :: TSSymbol where "sym_await_expression \<equiv> 238"
abbreviation (input) sym_type_test :: TSSymbol where "sym_type_test \<equiv> 239"
abbreviation (input) sym_is_operator :: TSSymbol where "sym_is_operator \<equiv> 240"
abbreviation (input) sym_type_cast :: TSSymbol where "sym_type_cast \<equiv> 241"
abbreviation (input) sym_as_operator :: TSSymbol where "sym_as_operator \<equiv> 242"
abbreviation (input) sym_new_expression :: TSSymbol where "sym_new_expression \<equiv> 243"
abbreviation (input) sym__dot_identifier :: TSSymbol where "sym__dot_identifier \<equiv> 244"
abbreviation (input) sym_const_object_expression :: TSSymbol where "sym_const_object_expression \<equiv> 245"
abbreviation (input) sym__primary :: TSSymbol where "sym__primary \<equiv> 246"
abbreviation (input) sym_parenthesized_expression :: TSSymbol where "sym_parenthesized_expression \<equiv> 247"
abbreviation (input) sym_constructor_invocation :: TSSymbol where "sym_constructor_invocation \<equiv> 248"
abbreviation (input) sym_constructor_tearoff :: TSSymbol where "sym_constructor_tearoff \<equiv> 249"
abbreviation (input) sym_arguments :: TSSymbol where "sym_arguments \<equiv> 250"
abbreviation (input) sym__argument_list :: TSSymbol where "sym__argument_list \<equiv> 251"
abbreviation (input) sym__any_argument :: TSSymbol where "sym__any_argument \<equiv> 252"
abbreviation (input) sym_argument :: TSSymbol where "sym_argument \<equiv> 253"
abbreviation (input) sym_named_argument :: TSSymbol where "sym_named_argument \<equiv> 254"
abbreviation (input) sym_cascade_section :: TSSymbol where "sym_cascade_section \<equiv> 255"
abbreviation (input) sym__cascade_subsection :: TSSymbol where "sym__cascade_subsection \<equiv> 256"
abbreviation (input) sym__cascade_assignment_section :: TSSymbol where "sym__cascade_assignment_section \<equiv> 257"
abbreviation (input) sym_index_selector :: TSSymbol where "sym_index_selector \<equiv> 258"
abbreviation (input) sym_cascade_selector :: TSSymbol where "sym_cascade_selector \<equiv> 259"
abbreviation (input) sym_argument_part :: TSSymbol where "sym_argument_part \<equiv> 260"
abbreviation (input) sym_unconditional_assignable_selector :: TSSymbol where "sym_unconditional_assignable_selector \<equiv> 261"
abbreviation (input) sym_conditional_assignable_selector :: TSSymbol where "sym_conditional_assignable_selector \<equiv> 262"
abbreviation (input) sym__assignable_selector :: TSSymbol where "sym__assignable_selector \<equiv> 263"
abbreviation (input) sym_type_arguments :: TSSymbol where "sym_type_arguments \<equiv> 264"
abbreviation (input) sym__statement :: TSSymbol where "sym__statement \<equiv> 265"
abbreviation (input) sym_local_function_declaration :: TSSymbol where "sym_local_function_declaration \<equiv> 266"
abbreviation (input) sym_block :: TSSymbol where "sym_block \<equiv> 267"
abbreviation (input) sym_expression_statement :: TSSymbol where "sym_expression_statement \<equiv> 268"
abbreviation (input) sym_assert_statement :: TSSymbol where "sym_assert_statement \<equiv> 269"
abbreviation (input) sym_assertion :: TSSymbol where "sym_assertion \<equiv> 270"
abbreviation (input) sym_assertion_arguments :: TSSymbol where "sym_assertion_arguments \<equiv> 271"
abbreviation (input) sym_switch_statement :: TSSymbol where "sym_switch_statement \<equiv> 272"
abbreviation (input) sym_switch_expression :: TSSymbol where "sym_switch_expression \<equiv> 273"
abbreviation (input) sym_switch_expression_case :: TSSymbol where "sym_switch_expression_case \<equiv> 274"
abbreviation (input) sym__guarded_pattern :: TSSymbol where "sym__guarded_pattern \<equiv> 275"
abbreviation (input) sym__pattern :: TSSymbol where "sym__pattern \<equiv> 276"
abbreviation (input) sym__logical_or_pattern :: TSSymbol where "sym__logical_or_pattern \<equiv> 277"
abbreviation (input) sym__logical_and_pattern :: TSSymbol where "sym__logical_and_pattern \<equiv> 278"
abbreviation (input) sym__relational_pattern :: TSSymbol where "sym__relational_pattern \<equiv> 279"
abbreviation (input) sym__unary_pattern :: TSSymbol where "sym__unary_pattern \<equiv> 280"
abbreviation (input) sym__primary_pattern :: TSSymbol where "sym__primary_pattern \<equiv> 281"
abbreviation (input) sym_cast_pattern :: TSSymbol where "sym_cast_pattern \<equiv> 282"
abbreviation (input) sym_null_check_pattern :: TSSymbol where "sym_null_check_pattern \<equiv> 283"
abbreviation (input) sym_null_assert_pattern :: TSSymbol where "sym_null_assert_pattern \<equiv> 284"
abbreviation (input) sym_constant_pattern :: TSSymbol where "sym_constant_pattern \<equiv> 285"
abbreviation (input) sym_variable_pattern :: TSSymbol where "sym_variable_pattern \<equiv> 286"
abbreviation (input) sym__parenthesized_pattern :: TSSymbol where "sym__parenthesized_pattern \<equiv> 287"
abbreviation (input) sym_list_pattern :: TSSymbol where "sym_list_pattern \<equiv> 288"
abbreviation (input) sym__list_pattern_element :: TSSymbol where "sym__list_pattern_element \<equiv> 289"
abbreviation (input) sym_rest_pattern :: TSSymbol where "sym_rest_pattern \<equiv> 290"
abbreviation (input) sym_map_pattern :: TSSymbol where "sym_map_pattern \<equiv> 291"
abbreviation (input) sym__map_pattern_entry :: TSSymbol where "sym__map_pattern_entry \<equiv> 292"
abbreviation (input) sym_record_pattern :: TSSymbol where "sym_record_pattern \<equiv> 293"
abbreviation (input) sym__pattern_field :: TSSymbol where "sym__pattern_field \<equiv> 294"
abbreviation (input) sym_object_pattern :: TSSymbol where "sym_object_pattern \<equiv> 295"
abbreviation (input) sym_pattern_variable_declaration :: TSSymbol where "sym_pattern_variable_declaration \<equiv> 296"
abbreviation (input) sym__outer_pattern :: TSSymbol where "sym__outer_pattern \<equiv> 297"
abbreviation (input) sym_pattern_assignment :: TSSymbol where "sym_pattern_assignment \<equiv> 298"
abbreviation (input) sym_switch_block :: TSSymbol where "sym_switch_block \<equiv> 299"
abbreviation (input) sym_switch_statement_case :: TSSymbol where "sym_switch_statement_case \<equiv> 300"
abbreviation (input) sym_switch_statement_default :: TSSymbol where "sym_switch_statement_default \<equiv> 301"
abbreviation (input) sym_do_statement :: TSSymbol where "sym_do_statement \<equiv> 302"
abbreviation (input) sym_break_statement :: TSSymbol where "sym_break_statement \<equiv> 303"
abbreviation (input) sym_continue_statement :: TSSymbol where "sym_continue_statement \<equiv> 304"
abbreviation (input) sym_yield_statement :: TSSymbol where "sym_yield_statement \<equiv> 305"
abbreviation (input) sym_yield_each_statement :: TSSymbol where "sym_yield_each_statement \<equiv> 306"
abbreviation (input) sym_return_statement :: TSSymbol where "sym_return_statement \<equiv> 307"
abbreviation (input) sym_try_statement :: TSSymbol where "sym_try_statement \<equiv> 308"
abbreviation (input) sym__on_part :: TSSymbol where "sym__on_part \<equiv> 309"
abbreviation (input) sym__try_head :: TSSymbol where "sym__try_head \<equiv> 310"
abbreviation (input) sym_catch_clause :: TSSymbol where "sym_catch_clause \<equiv> 311"
abbreviation (input) sym_catch_parameters :: TSSymbol where "sym_catch_parameters \<equiv> 312"
abbreviation (input) sym_finally_clause :: TSSymbol where "sym_finally_clause \<equiv> 313"
abbreviation (input) sym_if_element :: TSSymbol where "sym_if_element \<equiv> 314"
abbreviation (input) sym_if_statement :: TSSymbol where "sym_if_statement \<equiv> 315"
abbreviation (input) sym_while_statement :: TSSymbol where "sym_while_statement \<equiv> 316"
abbreviation (input) sym_for_statement :: TSSymbol where "sym_for_statement \<equiv> 317"
abbreviation (input) sym_for_loop_parts :: TSSymbol where "sym_for_loop_parts \<equiv> 318"
abbreviation (input) sym__for_loop_parts :: TSSymbol where "sym__for_loop_parts \<equiv> 319"
abbreviation (input) sym_for_element :: TSSymbol where "sym_for_element \<equiv> 320"
abbreviation (input) sym_annotation :: TSSymbol where "sym_annotation \<equiv> 321"
abbreviation (input) sym_import_or_export :: TSSymbol where "sym_import_or_export \<equiv> 322"
abbreviation (input) sym_library_import :: TSSymbol where "sym_library_import \<equiv> 323"
abbreviation (input) sym_library_export :: TSSymbol where "sym_library_export \<equiv> 324"
abbreviation (input) sym_import_specification :: TSSymbol where "sym_import_specification \<equiv> 325"
abbreviation (input) sym_part_directive :: TSSymbol where "sym_part_directive \<equiv> 326"
abbreviation (input) sym_part_of_directive :: TSSymbol where "sym_part_of_directive \<equiv> 327"
abbreviation (input) sym_uri :: TSSymbol where "sym_uri \<equiv> 328"
abbreviation (input) sym_configurable_uri :: TSSymbol where "sym_configurable_uri \<equiv> 329"
abbreviation (input) sym_configuration_uri :: TSSymbol where "sym_configuration_uri \<equiv> 330"
abbreviation (input) sym_configuration_uri_condition :: TSSymbol where "sym_configuration_uri_condition \<equiv> 331"
abbreviation (input) sym_uri_test :: TSSymbol where "sym_uri_test \<equiv> 332"
abbreviation (input) sym_combinator :: TSSymbol where "sym_combinator \<equiv> 333"
abbreviation (input) sym__identifier_list :: TSSymbol where "sym__identifier_list \<equiv> 334"
abbreviation (input) sym_enum_declaration :: TSSymbol where "sym_enum_declaration \<equiv> 335"
abbreviation (input) sym_enum_body :: TSSymbol where "sym_enum_body \<equiv> 336"
abbreviation (input) sym_enum_constant :: TSSymbol where "sym_enum_constant \<equiv> 337"
abbreviation (input) sym_type_alias :: TSSymbol where "sym_type_alias \<equiv> 338"
abbreviation (input) sym__class_modifiers :: TSSymbol where "sym__class_modifiers \<equiv> 339"
abbreviation (input) sym__mixin_class_modifiers :: TSSymbol where "sym__mixin_class_modifiers \<equiv> 340"
abbreviation (input) sym_class_definition :: TSSymbol where "sym_class_definition \<equiv> 341"
abbreviation (input) sym_extension_declaration :: TSSymbol where "sym_extension_declaration \<equiv> 342"
abbreviation (input) sym__metadata :: TSSymbol where "sym__metadata \<equiv> 343"
abbreviation (input) sym_type_parameters :: TSSymbol where "sym_type_parameters \<equiv> 344"
abbreviation (input) sym_type_parameter :: TSSymbol where "sym_type_parameter \<equiv> 345"
abbreviation (input) sym_type_bound :: TSSymbol where "sym_type_bound \<equiv> 346"
abbreviation (input) sym_superclass :: TSSymbol where "sym_superclass \<equiv> 347"
abbreviation (input) sym_mixins :: TSSymbol where "sym_mixins \<equiv> 348"
abbreviation (input) sym_mixin_application_class :: TSSymbol where "sym_mixin_application_class \<equiv> 349"
abbreviation (input) sym_mixin_application :: TSSymbol where "sym_mixin_application \<equiv> 350"
abbreviation (input) sym_mixin_declaration :: TSSymbol where "sym_mixin_declaration \<equiv> 351"
abbreviation (input) sym_interfaces :: TSSymbol where "sym_interfaces \<equiv> 352"
abbreviation (input) sym_class_body :: TSSymbol where "sym_class_body \<equiv> 353"
abbreviation (input) sym_extension_body :: TSSymbol where "sym_extension_body \<equiv> 354"
abbreviation (input) sym_getter_signature :: TSSymbol where "sym_getter_signature \<equiv> 355"
abbreviation (input) sym_setter_signature :: TSSymbol where "sym_setter_signature \<equiv> 356"
abbreviation (input) sym_method_signature :: TSSymbol where "sym_method_signature \<equiv> 357"
abbreviation (input) sym_declaration :: TSSymbol where "sym_declaration \<equiv> 358"
abbreviation (input) sym_identifier_list :: TSSymbol where "sym_identifier_list \<equiv> 359"
abbreviation (input) sym_initialized_identifier_list :: TSSymbol where "sym_initialized_identifier_list \<equiv> 360"
abbreviation (input) sym_initialized_identifier :: TSSymbol where "sym_initialized_identifier \<equiv> 361"
abbreviation (input) sym_static_final_declaration_list :: TSSymbol where "sym_static_final_declaration_list \<equiv> 362"
abbreviation (input) sym_binary_operator :: TSSymbol where "sym_binary_operator \<equiv> 363"
abbreviation (input) sym_operator_signature :: TSSymbol where "sym_operator_signature \<equiv> 364"
abbreviation (input) sym_static_final_declaration :: TSSymbol where "sym_static_final_declaration \<equiv> 365"
abbreviation (input) sym__external_and_static :: TSSymbol where "sym__external_and_static \<equiv> 366"
abbreviation (input) sym__final_or_const :: TSSymbol where "sym__final_or_const \<equiv> 367"
abbreviation (input) sym_initializers :: TSSymbol where "sym_initializers \<equiv> 368"
abbreviation (input) sym_initializer_list_entry :: TSSymbol where "sym_initializer_list_entry \<equiv> 369"
abbreviation (input) sym_field_initializer :: TSSymbol where "sym_field_initializer \<equiv> 370"
abbreviation (input) sym_factory_constructor_signature :: TSSymbol where "sym_factory_constructor_signature \<equiv> 371"
abbreviation (input) sym_redirecting_factory_constructor_signature :: TSSymbol where "sym_redirecting_factory_constructor_signature \<equiv> 372"
abbreviation (input) sym_redirection :: TSSymbol where "sym_redirection \<equiv> 373"
abbreviation (input) sym_constructor_signature :: TSSymbol where "sym_constructor_signature \<equiv> 374"
abbreviation (input) sym_constant_constructor_signature :: TSSymbol where "sym_constant_constructor_signature \<equiv> 375"
abbreviation (input) sym_scoped_identifier :: TSSymbol where "sym_scoped_identifier \<equiv> 376"
abbreviation (input) sym_initialized_variable_definition :: TSSymbol where "sym_initialized_variable_definition \<equiv> 377"
abbreviation (input) sym__declared_identifier :: TSSymbol where "sym__declared_identifier \<equiv> 378"
abbreviation (input) sym__final_const_var_or_type :: TSSymbol where "sym__final_const_var_or_type \<equiv> 379"
abbreviation (input) sym__type :: TSSymbol where "sym__type \<equiv> 380"
abbreviation (input) sym__type_not_function :: TSSymbol where "sym__type_not_function \<equiv> 381"
abbreviation (input) sym__type_not_void_not_function :: TSSymbol where "sym__type_not_void_not_function \<equiv> 382"
abbreviation (input) sym_function_type :: TSSymbol where "sym_function_type \<equiv> 383"
abbreviation (input) aux_sym__function_type_tails :: TSSymbol where "aux_sym__function_type_tails \<equiv> 384"
abbreviation (input) sym__function_type_tail :: TSSymbol where "sym__function_type_tail \<equiv> 385"
abbreviation (input) sym_parameter_type_list :: TSSymbol where "sym_parameter_type_list \<equiv> 386"
abbreviation (input) sym_normal_parameter_type :: TSSymbol where "sym_normal_parameter_type \<equiv> 387"
abbreviation (input) sym_optional_parameter_types :: TSSymbol where "sym_optional_parameter_types \<equiv> 388"
abbreviation (input) sym_optional_positional_parameter_types :: TSSymbol where "sym_optional_positional_parameter_types \<equiv> 389"
abbreviation (input) sym_named_parameter_types :: TSSymbol where "sym_named_parameter_types \<equiv> 390"
abbreviation (input) sym__named_parameter_type :: TSSymbol where "sym__named_parameter_type \<equiv> 391"
abbreviation (input) sym__type_not_void :: TSSymbol where "sym__type_not_void \<equiv> 392"
abbreviation (input) sym_record_type :: TSSymbol where "sym_record_type \<equiv> 393"
abbreviation (input) sym_record_type_field :: TSSymbol where "sym_record_type_field \<equiv> 394"
abbreviation (input) sym_record_type_named_field :: TSSymbol where "sym_record_type_named_field \<equiv> 395"
abbreviation (input) sym__type_not_void_list :: TSSymbol where "sym__type_not_void_list \<equiv> 396"
abbreviation (input) sym__type_name :: TSSymbol where "sym__type_name \<equiv> 397"
abbreviation (input) sym__type_dot_identifier :: TSSymbol where "sym__type_dot_identifier \<equiv> 398"
abbreviation (input) sym_typed_identifier :: TSSymbol where "sym_typed_identifier \<equiv> 399"
abbreviation (input) sym_nullable_type :: TSSymbol where "sym_nullable_type \<equiv> 400"
abbreviation (input) sym_nullable_selector :: TSSymbol where "sym_nullable_selector \<equiv> 401"
abbreviation (input) sym__var_or_type :: TSSymbol where "sym__var_or_type \<equiv> 402"
abbreviation (input) sym__final_var_or_type :: TSSymbol where "sym__final_var_or_type \<equiv> 403"
abbreviation (input) sym_inferred_type :: TSSymbol where "sym_inferred_type \<equiv> 404"
abbreviation (input) sym_function_body :: TSSymbol where "sym_function_body \<equiv> 405"
abbreviation (input) sym_function_expression_body :: TSSymbol where "sym_function_expression_body \<equiv> 406"
abbreviation (input) sym_function_signature :: TSSymbol where "sym_function_signature \<equiv> 407"
abbreviation (input) sym__formal_parameter_part :: TSSymbol where "sym__formal_parameter_part \<equiv> 408"
abbreviation (input) sym_formal_parameter_list :: TSSymbol where "sym_formal_parameter_list \<equiv> 409"
abbreviation (input) sym__strict_formal_parameter_list :: TSSymbol where "sym__strict_formal_parameter_list \<equiv> 410"
abbreviation (input) sym__normal_formal_parameters :: TSSymbol where "sym__normal_formal_parameters \<equiv> 411"
abbreviation (input) sym_optional_formal_parameters :: TSSymbol where "sym_optional_formal_parameters \<equiv> 412"
abbreviation (input) sym__optional_postional_formal_parameters :: TSSymbol where "sym__optional_postional_formal_parameters \<equiv> 413"
abbreviation (input) sym__named_formal_parameters :: TSSymbol where "sym__named_formal_parameters \<equiv> 414"
abbreviation (input) sym_formal_parameter :: TSSymbol where "sym_formal_parameter \<equiv> 415"
abbreviation (input) sym__default_formal_parameter :: TSSymbol where "sym__default_formal_parameter \<equiv> 416"
abbreviation (input) sym__default_named_parameter :: TSSymbol where "sym__default_named_parameter \<equiv> 417"
abbreviation (input) sym__normal_formal_parameter :: TSSymbol where "sym__normal_formal_parameter \<equiv> 418"
abbreviation (input) sym__function_formal_parameter :: TSSymbol where "sym__function_formal_parameter \<equiv> 419"
abbreviation (input) sym__simple_formal_parameter :: TSSymbol where "sym__simple_formal_parameter \<equiv> 420"
abbreviation (input) sym_super_formal_parameter :: TSSymbol where "sym_super_formal_parameter \<equiv> 421"
abbreviation (input) sym_constructor_param :: TSSymbol where "sym_constructor_param \<equiv> 422"
abbreviation (input) sym_local_variable_declaration :: TSSymbol where "sym_local_variable_declaration \<equiv> 423"
abbreviation (input) sym_script_tag :: TSSymbol where "sym_script_tag \<equiv> 424"
abbreviation (input) sym_library_name :: TSSymbol where "sym_library_name \<equiv> 425"
abbreviation (input) sym_dotted_identifier_list :: TSSymbol where "sym_dotted_identifier_list \<equiv> 426"
abbreviation (input) sym__identifier_or_new :: TSSymbol where "sym__identifier_or_new \<equiv> 427"
abbreviation (input) sym_qualified :: TSSymbol where "sym_qualified \<equiv> 428"
abbreviation (input) sym__as :: TSSymbol where "sym__as \<equiv> 429"
abbreviation (input) sym_case_builtin :: TSSymbol where "sym_case_builtin \<equiv> 430"
abbreviation (input) sym__covariant :: TSSymbol where "sym__covariant \<equiv> 431"
abbreviation (input) sym__deferred :: TSSymbol where "sym__deferred \<equiv> 432"
abbreviation (input) sym__export :: TSSymbol where "sym__export \<equiv> 433"
abbreviation (input) sym__external :: TSSymbol where "sym__external \<equiv> 434"
abbreviation (input) sym__factory :: TSSymbol where "sym__factory \<equiv> 435"
abbreviation (input) sym__function_builtin_identifier :: TSSymbol where "sym__function_builtin_identifier \<equiv> 436"
abbreviation (input) sym__get :: TSSymbol where "sym__get \<equiv> 437"
abbreviation (input) sym__native :: TSSymbol where "sym__native \<equiv> 438"
abbreviation (input) sym__implements :: TSSymbol where "sym__implements \<equiv> 439"
abbreviation (input) sym__import :: TSSymbol where "sym__import \<equiv> 440"
abbreviation (input) sym_interface :: TSSymbol where "sym_interface \<equiv> 441"
abbreviation (input) sym_base :: TSSymbol where "sym_base \<equiv> 442"
abbreviation (input) sym_abstract :: TSSymbol where "sym_abstract \<equiv> 443"
abbreviation (input) sym_sealed :: TSSymbol where "sym_sealed \<equiv> 444"
abbreviation (input) sym__operator :: TSSymbol where "sym__operator \<equiv> 445"
abbreviation (input) sym_mixin :: TSSymbol where "sym_mixin \<equiv> 446"
abbreviation (input) sym__required :: TSSymbol where "sym__required \<equiv> 447"
abbreviation (input) sym__set :: TSSymbol where "sym__set \<equiv> 448"
abbreviation (input) sym__static :: TSSymbol where "sym__static \<equiv> 449"
abbreviation (input) sym__typedef :: TSSymbol where "sym__typedef \<equiv> 450"
abbreviation (input) sym__new_builtin :: TSSymbol where "sym__new_builtin \<equiv> 451"
abbreviation (input) sym_logical_and_operator :: TSSymbol where "sym_logical_and_operator \<equiv> 452"
abbreviation (input) sym_logical_or_operator :: TSSymbol where "sym_logical_or_operator \<equiv> 453"
abbreviation (input) sym_final_builtin :: TSSymbol where "sym_final_builtin \<equiv> 454"
abbreviation (input) sym__late_builtin :: TSSymbol where "sym__late_builtin \<equiv> 455"
abbreviation (input) sym__external_builtin :: TSSymbol where "sym__external_builtin \<equiv> 456"
abbreviation (input) sym_this :: TSSymbol where "sym_this \<equiv> 457"
abbreviation (input) sym_super :: TSSymbol where "sym_super \<equiv> 458"
abbreviation (input) sym_label :: TSSymbol where "sym_label \<equiv> 459"
abbreviation (input) sym__semicolon :: TSSymbol where "sym__semicolon \<equiv> 460"
abbreviation (input) sym_comment :: TSSymbol where "sym_comment \<equiv> 461"
abbreviation (input) sym_documentation_comment :: TSSymbol where "sym_documentation_comment \<equiv> 462"
abbreviation (input) aux_sym_program_repeat1 :: TSSymbol where "aux_sym_program_repeat1 \<equiv> 463"
abbreviation (input) aux_sym_program_repeat2 :: TSSymbol where "aux_sym_program_repeat2 \<equiv> 464"
abbreviation (input) aux_sym_program_repeat3 :: TSSymbol where "aux_sym_program_repeat3 \<equiv> 465"
abbreviation (input) aux_sym_program_repeat4 :: TSSymbol where "aux_sym_program_repeat4 \<equiv> 466"
abbreviation (input) aux_sym_string_literal_repeat1 :: TSSymbol where "aux_sym_string_literal_repeat1 \<equiv> 467"
abbreviation (input) aux_sym__string_literal_double_quotes_repeat1 :: TSSymbol where "aux_sym__string_literal_double_quotes_repeat1 \<equiv> 468"
abbreviation (input) aux_sym__string_literal_single_quotes_repeat1 :: TSSymbol where "aux_sym__string_literal_single_quotes_repeat1 \<equiv> 469"
abbreviation (input) aux_sym__string_literal_double_quotes_multiple_repeat1 :: TSSymbol where "aux_sym__string_literal_double_quotes_multiple_repeat1 \<equiv> 470"
abbreviation (input) aux_sym__string_literal_single_quotes_multiple_repeat1 :: TSSymbol where "aux_sym__string_literal_single_quotes_multiple_repeat1 \<equiv> 471"
abbreviation (input) aux_sym__raw_string_literal_double_quotes_repeat1 :: TSSymbol where "aux_sym__raw_string_literal_double_quotes_repeat1 \<equiv> 472"
abbreviation (input) aux_sym__raw_string_literal_single_quotes_repeat1 :: TSSymbol where "aux_sym__raw_string_literal_single_quotes_repeat1 \<equiv> 473"
abbreviation (input) aux_sym__raw_string_literal_double_quotes_multiple_repeat1 :: TSSymbol where "aux_sym__raw_string_literal_double_quotes_multiple_repeat1 \<equiv> 474"
abbreviation (input) aux_sym__raw_string_literal_single_quotes_multiple_repeat1 :: TSSymbol where "aux_sym__raw_string_literal_single_quotes_multiple_repeat1 \<equiv> 475"
abbreviation (input) aux_sym_list_literal_repeat1 :: TSSymbol where "aux_sym_list_literal_repeat1 \<equiv> 476"
abbreviation (input) aux_sym__record_literal_no_const_repeat1 :: TSSymbol where "aux_sym__record_literal_no_const_repeat1 \<equiv> 477"
abbreviation (input) aux_sym__expression_repeat1 :: TSSymbol where "aux_sym__expression_repeat1 \<equiv> 478"
abbreviation (input) aux_sym__assignable_selector_part_repeat1 :: TSSymbol where "aux_sym__assignable_selector_part_repeat1 \<equiv> 479"
abbreviation (input) aux_sym_inferred_parameters_repeat1 :: TSSymbol where "aux_sym_inferred_parameters_repeat1 \<equiv> 480"
abbreviation (input) aux_sym_logical_or_expression_repeat1 :: TSSymbol where "aux_sym_logical_or_expression_repeat1 \<equiv> 481"
abbreviation (input) aux_sym_logical_and_expression_repeat1 :: TSSymbol where "aux_sym_logical_and_expression_repeat1 \<equiv> 482"
abbreviation (input) aux_sym_bitwise_or_expression_repeat1 :: TSSymbol where "aux_sym_bitwise_or_expression_repeat1 \<equiv> 483"
abbreviation (input) aux_sym_bitwise_xor_expression_repeat1 :: TSSymbol where "aux_sym_bitwise_xor_expression_repeat1 \<equiv> 484"
abbreviation (input) aux_sym_bitwise_and_expression_repeat1 :: TSSymbol where "aux_sym_bitwise_and_expression_repeat1 \<equiv> 485"
abbreviation (input) aux_sym_shift_expression_repeat1 :: TSSymbol where "aux_sym_shift_expression_repeat1 \<equiv> 486"
abbreviation (input) aux_sym_additive_expression_repeat1 :: TSSymbol where "aux_sym_additive_expression_repeat1 \<equiv> 487"
abbreviation (input) aux_sym_multiplicative_expression_repeat1 :: TSSymbol where "aux_sym_multiplicative_expression_repeat1 \<equiv> 488"
abbreviation (input) aux_sym__argument_list_repeat1 :: TSSymbol where "aux_sym__argument_list_repeat1 \<equiv> 489"
abbreviation (input) aux_sym_cascade_section_repeat1 :: TSSymbol where "aux_sym_cascade_section_repeat1 \<equiv> 490"
abbreviation (input) aux_sym_cascade_section_repeat2 :: TSSymbol where "aux_sym_cascade_section_repeat2 \<equiv> 491"
abbreviation (input) aux_sym_type_arguments_repeat1 :: TSSymbol where "aux_sym_type_arguments_repeat1 \<equiv> 492"
abbreviation (input) aux_sym_block_repeat1 :: TSSymbol where "aux_sym_block_repeat1 \<equiv> 493"
abbreviation (input) aux_sym_switch_expression_repeat1 :: TSSymbol where "aux_sym_switch_expression_repeat1 \<equiv> 494"
abbreviation (input) aux_sym__logical_or_pattern_repeat1 :: TSSymbol where "aux_sym__logical_or_pattern_repeat1 \<equiv> 495"
abbreviation (input) aux_sym__logical_and_pattern_repeat1 :: TSSymbol where "aux_sym__logical_and_pattern_repeat1 \<equiv> 496"
abbreviation (input) aux_sym_list_pattern_repeat1 :: TSSymbol where "aux_sym_list_pattern_repeat1 \<equiv> 497"
abbreviation (input) aux_sym_map_pattern_repeat1 :: TSSymbol where "aux_sym_map_pattern_repeat1 \<equiv> 498"
abbreviation (input) aux_sym_record_pattern_repeat1 :: TSSymbol where "aux_sym_record_pattern_repeat1 \<equiv> 499"
abbreviation (input) aux_sym_switch_block_repeat1 :: TSSymbol where "aux_sym_switch_block_repeat1 \<equiv> 500"
abbreviation (input) aux_sym_switch_statement_case_repeat1 :: TSSymbol where "aux_sym_switch_statement_case_repeat1 \<equiv> 501"
abbreviation (input) aux_sym_try_statement_repeat1 :: TSSymbol where "aux_sym_try_statement_repeat1 \<equiv> 502"
abbreviation (input) aux_sym__for_loop_parts_repeat1 :: TSSymbol where "aux_sym__for_loop_parts_repeat1 \<equiv> 503"
abbreviation (input) aux_sym__for_loop_parts_repeat2 :: TSSymbol where "aux_sym__for_loop_parts_repeat2 \<equiv> 504"
abbreviation (input) aux_sym_library_export_repeat1 :: TSSymbol where "aux_sym_library_export_repeat1 \<equiv> 505"
abbreviation (input) aux_sym_configurable_uri_repeat1 :: TSSymbol where "aux_sym_configurable_uri_repeat1 \<equiv> 506"
abbreviation (input) aux_sym_enum_body_repeat1 :: TSSymbol where "aux_sym_enum_body_repeat1 \<equiv> 507"
abbreviation (input) aux_sym_enum_body_repeat2 :: TSSymbol where "aux_sym_enum_body_repeat2 \<equiv> 508"
abbreviation (input) aux_sym__metadata_repeat1 :: TSSymbol where "aux_sym__metadata_repeat1 \<equiv> 509"
abbreviation (input) aux_sym_type_parameters_repeat1 :: TSSymbol where "aux_sym_type_parameters_repeat1 \<equiv> 510"
abbreviation (input) aux_sym_extension_body_repeat1 :: TSSymbol where "aux_sym_extension_body_repeat1 \<equiv> 511"
abbreviation (input) aux_sym_initialized_identifier_list_repeat1 :: TSSymbol where "aux_sym_initialized_identifier_list_repeat1 \<equiv> 512"
abbreviation (input) aux_sym_static_final_declaration_list_repeat1 :: TSSymbol where "aux_sym_static_final_declaration_list_repeat1 \<equiv> 513"
abbreviation (input) aux_sym_initializers_repeat1 :: TSSymbol where "aux_sym_initializers_repeat1 \<equiv> 514"
abbreviation (input) aux_sym_factory_constructor_signature_repeat1 :: TSSymbol where "aux_sym_factory_constructor_signature_repeat1 \<equiv> 515"
abbreviation (input) aux_sym_parameter_type_list_repeat1 :: TSSymbol where "aux_sym_parameter_type_list_repeat1 \<equiv> 516"
abbreviation (input) aux_sym_named_parameter_types_repeat1 :: TSSymbol where "aux_sym_named_parameter_types_repeat1 \<equiv> 517"
abbreviation (input) aux_sym_record_type_repeat1 :: TSSymbol where "aux_sym_record_type_repeat1 \<equiv> 518"
abbreviation (input) aux_sym_record_type_repeat2 :: TSSymbol where "aux_sym_record_type_repeat2 \<equiv> 519"
abbreviation (input) aux_sym__type_not_void_list_repeat1 :: TSSymbol where "aux_sym__type_not_void_list_repeat1 \<equiv> 520"
abbreviation (input) aux_sym__normal_formal_parameters_repeat1 :: TSSymbol where "aux_sym__normal_formal_parameters_repeat1 \<equiv> 521"
abbreviation (input) aux_sym_positional_parameters_repeat1 :: TSSymbol where "aux_sym_positional_parameters_repeat1 \<equiv> 522"
abbreviation (input) aux_sym__named_formal_parameters_repeat1 :: TSSymbol where "aux_sym__named_formal_parameters_repeat1 \<equiv> 523"
abbreviation (input) alias_sym_type_identifier :: TSSymbol where "alias_sym_type_identifier \<equiv> 524"

end
