(* ===== verification/Dart_Fields.thy ===== *)
theory Dart_Fields
  imports Dart_Symbols
begin

text \<open>
  The field and alias tables of \<^verbatim>\<open>parser.c\<close>: the names of the fields, for every production id the slice
  of \<^verbatim>\<open>ts_field_map_entries\<close> with its fields and the row of \<^verbatim>\<open>ts_alias_sequences\<close> with its aliases.
\<close>

subsection \<open>Fields\<close>

abbreviation (input) field_alternative :: TSFieldId where "field_alternative \<equiv> 1"
abbreviation (input) field_body :: TSFieldId where "field_body \<equiv> 2"
abbreviation (input) field_class :: TSFieldId where "field_class \<equiv> 3"
abbreviation (input) field_condition :: TSFieldId where "field_condition \<equiv> 4"
abbreviation (input) field_consequence :: TSFieldId where "field_consequence \<equiv> 5"
abbreviation (input) field_first :: TSFieldId where "field_first \<equiv> 6"
abbreviation (input) field_init :: TSFieldId where "field_init \<equiv> 7"
abbreviation (input) field_interfaces :: TSFieldId where "field_interfaces \<equiv> 8"
abbreviation (input) field_key :: TSFieldId where "field_key \<equiv> 9"
abbreviation (input) field_left :: TSFieldId where "field_left \<equiv> 10"
abbreviation (input) field_name :: TSFieldId where "field_name \<equiv> 11"
abbreviation (input) field_operator :: TSFieldId where "field_operator \<equiv> 12"
abbreviation (input) field_parameters :: TSFieldId where "field_parameters \<equiv> 13"
abbreviation (input) field_right :: TSFieldId where "field_right \<equiv> 14"
abbreviation (input) field_scope :: TSFieldId where "field_scope \<equiv> 15"
abbreviation (input) field_second :: TSFieldId where "field_second \<equiv> 16"
abbreviation (input) field_superclass :: TSFieldId where "field_superclass \<equiv> 17"
abbreviation (input) field_type_parameters :: TSFieldId where "field_type_parameters \<equiv> 18"
abbreviation (input) field_update :: TSFieldId where "field_update \<equiv> 19"
abbreviation (input) field_value :: TSFieldId where "field_value \<equiv> 20"

definition ts_field_names :: "string option list" where
  "ts_field_names = designated_unsized None [
     (0, None), (field_alternative, Some ''alternative''), (field_body, Some ''body''),
     (field_class, Some ''class''), (field_condition, Some ''condition''),
     (field_consequence, Some ''consequence''), (field_first, Some ''first''),
     (field_init, Some ''init''), (field_interfaces, Some ''interfaces''),
     (field_key, Some ''key''), (field_left, Some ''left''), (field_name, Some ''name''),
     (field_operator, Some ''operator''), (field_parameters, Some ''parameters''),
     (field_right, Some ''right''), (field_scope, Some ''scope''),
     (field_second, Some ''second''), (field_superclass, Some ''superclass''),
     (field_type_parameters, Some ''type_parameters''), (field_update, Some ''update''),
     (field_value, Some ''value'')]"

record TSFieldMapSlice =
  slice_index :: nat
  slice_length :: nat

record TSFieldMapEntry =
  field_id :: TSFieldId
  child_index :: nat
  inherited :: bool

abbreviation (input) SL :: "nat \<Rightarrow> nat \<Rightarrow> TSFieldMapSlice" where
  "SL i n \<equiv> \<lparr>slice_index = i, slice_length = n\<rparr>"

abbreviation (input) FE :: "TSFieldId \<Rightarrow> nat \<Rightarrow> bool \<Rightarrow> TSFieldMapEntry" where
  "FE f c inh \<equiv> \<lparr>field_id = f, child_index = c, inherited = inh\<rparr>"

definition ts_field_map_slices_table :: "(nat \<times> TSFieldMapSlice) list" where
  "ts_field_map_slices_table = [
     (2, SL 0 1), (3, SL 1 1), (4, SL 1 1), (5, SL 2 2), (6, SL 4 1), (8, SL 5 1), (9, SL 6 1),
     (10, SL 0 1), (11, SL 7 2), (12, SL 9 2), (13, SL 11 2), (14, SL 13 1), (15, SL 14 3),
     (16, SL 17 3), (17, SL 20 3), (18, SL 23 2), (19, SL 25 1), (20, SL 26 2), (21, SL 28 2),
     (22, SL 30 2), (23, SL 32 3), (24, SL 35 3), (25, SL 38 2), (26, SL 40 4), (27, SL 44 4),
     (28, SL 48 4), (29, SL 52 2), (30, SL 54 2), (31, SL 56 3), (32, SL 59 3), (33, SL 62 3),
     (34, SL 65 2), (35, SL 67 1), (36, SL 68 1), (37, SL 69 2), (38, SL 71 3), (39, SL 74 2),
     (40, SL 76 2), (41, SL 78 4), (42, SL 82 1), (43, SL 83 5), (44, SL 88 2), (45, SL 90 3),
     (46, SL 93 3), (47, SL 96 4), (48, SL 100 4), (49, SL 104 4), (50, SL 108 2),
     (51, SL 110 1), (52, SL 111 1), (53, SL 112 5), (54, SL 117 1), (55, SL 118 1),
     (56, SL 119 4), (57, SL 123 2), (58, SL 125 4), (59, SL 129 5), (60, SL 134 4),
     (61, SL 138 2), (62, SL 140 1), (63, SL 141 1), (64, SL 142 1), (65, SL 143 2),
     (66, SL 145 2), (67, SL 147 2), (68, SL 149 2), (69, SL 151 1), (70, SL 152 2),
     (71, SL 154 1), (72, SL 155 2), (73, SL 157 5), (74, SL 162 2), (75, SL 164 3),
     (76, SL 167 2), (77, SL 169 2), (78, SL 171 1), (79, SL 172 3), (80, SL 175 3),
     (81, SL 178 2), (82, SL 180 2), (83, SL 182 2), (84, SL 184 6), (85, SL 190 2),
     (86, SL 192 1), (87, SL 193 3), (88, SL 196 3), (89, SL 199 3), (90, SL 202 3),
     (91, SL 205 4), (92, SL 209 3), (93, SL 212 4), (94, SL 216 4), (95, SL 220 4),
     (96, SL 224 2), (97, SL 226 5)]"

definition ts_field_map_slices :: "TSFieldMapSlice list" where
  "ts_field_map_slices = designated PRODUCTION_ID_COUNT (SL 0 0) ts_field_map_slices_table"

definition ts_field_map_entries_1 :: "(nat \<times> TSFieldMapEntry list) list" where
  "ts_field_map_entries_1 = [
     (0, [FE field_name 1 False]), (1, [FE field_name 0 False]),
     (2, [FE field_body 2 False, FE field_name 1 False]), (4, [FE field_name 0 True]),
     (5, [FE field_body 0 True]), (6, [FE field_name 2 False]),
     (7, [FE field_name 2 False, FE field_scope 0 False]),
     (9, [FE field_body 3 False, FE field_name 1 False]),
     (11, [FE field_body 3 False, FE field_class 2 False]), (13, [FE field_name 1 True]),
     (14, [FE field_body 3 False, FE field_name 1 False, FE field_type_parameters 2 False]),
     (17, [FE field_body 3 False, FE field_name 1 False, FE field_superclass 2 False]),
     (20, [FE field_body 3 False, FE field_interfaces 2 False, FE field_name 1 False]),
     (23, [FE field_body 3 False, FE field_name 2 False]), (25, [FE field_body 1 False]),
     (26, [FE field_first 0 False, FE field_second 1 True]),
     (28, [FE field_body 1 False, FE field_parameters 0 False]),
     (30, [FE field_body 4 False, FE field_name 1 False]),
     (32, [FE field_body 4 False, FE field_class 3 False, FE field_name 1 False]),
     (35, [FE field_body 4 False, FE field_class 3 False, FE field_type_parameters 1 False]),
     (38, [FE field_name 0 False, FE field_parameters 1 False]),
     (40, [FE field_body 4 False, FE field_name 1 False, FE field_superclass 3 False, FE field_type_parameters 2 False]),
     (44, [FE field_body 4 False, FE field_interfaces 3 False, FE field_name 1 False, FE field_type_parameters 2 False]),
     (48, [FE field_body 4 False, FE field_interfaces 3 False, FE field_name 1 False, FE field_superclass 2 False]),
     (52, [FE field_body 4 False, FE field_name 2 False]),
     (54, [FE field_body 4 False, FE field_class 3 False]),
     (56, [FE field_body 4 False, FE field_name 2 False, FE field_type_parameters 3 False]),
     (59, [FE field_body 4 False, FE field_name 2 False, FE field_superclass 3 False]),
     (62, [FE field_body 4 False, FE field_interfaces 3 False, FE field_name 2 False]),
     (65, [FE field_body 2 False, FE field_condition 1 False]), (67, [FE field_body 2 False]),
     (68, [FE field_second 1 False]), (69, [FE field_second 0 True, FE field_second 1 True]),
     (71, [FE field_left 0 False, FE field_operator 1 False, FE field_right 2 False]),
     (74, [FE field_name 0 True, FE field_value 2 False]),
     (76, [FE field_body 5 False, FE field_name 1 False]),
     (78, [FE field_body 5 False, FE field_class 4 False, FE field_name 1 False, FE field_type_parameters 2 False]),
     (82, [FE field_name 3 False]),
     (83, [FE field_body 5 False, FE field_interfaces 4 False, FE field_name 1 False, FE field_superclass 3 False, FE field_type_parameters 2 False]),
     (88, [FE field_body 5 False, FE field_name 2 False]),
     (90, [FE field_body 5 False, FE field_class 4 False, FE field_name 2 False]),
     (93, [FE field_body 5 False, FE field_class 4 False, FE field_type_parameters 2 False]),
     (96, [FE field_body 5 False, FE field_name 2 False, FE field_superclass 4 False, FE field_type_parameters 3 False]),
     (100, [FE field_body 5 False, FE field_interfaces 4 False, FE field_name 2 False, FE field_type_parameters 3 False])]"

definition ts_field_map_entries_2 :: "(nat \<times> TSFieldMapEntry list) list" where
  "ts_field_map_entries_2 = [
     (104, [FE field_body 5 False, FE field_interfaces 4 False, FE field_name 2 False, FE field_superclass 3 False]),
     (108, [FE field_key 0 False, FE field_value 2 False]), (110, [FE field_body 3 False]),
     (111, [FE field_condition 0 False]),
     (112, [FE field_condition 1 True, FE field_init 1 True, FE field_name 1 True, FE field_update 1 True, FE field_value 1 True]),
     (117, [FE field_init 0 False]), (118, [FE field_update 1 False]),
     (119, [FE field_name 0 False, FE field_name 1 False, FE field_name 2 False, FE field_parameters 3 False]),
     (123, [FE field_body 6 False, FE field_name 2 False]),
     (125, [FE field_body 6 False, FE field_class 5 False, FE field_name 2 False, FE field_type_parameters 3 False]),
     (129, [FE field_body 6 False, FE field_interfaces 5 False, FE field_name 2 False, FE field_superclass 4 False, FE field_type_parameters 3 False]),
     (134, [FE field_body 2 False, FE field_body 3 False, FE field_body 4 False, FE field_condition 1 False]),
     (138, [FE field_body 1 False, FE field_condition 3 False]),
     (140, [FE field_consequence 4 False]), (141, [FE field_value 2 False]),
     (142, [FE field_init 1 False]),
     (143, [FE field_condition 0 False, FE field_update 2 False]),
     (145, [FE field_init 0 True, FE field_init 1 True]),
     (147, [FE field_condition 1 False, FE field_init 0 False]),
     (149, [FE field_init 0 False, FE field_update 2 False]),
     (151, [FE field_condition 1 False]),
     (152, [FE field_update 1 False, FE field_update 2 True]), (154, [FE field_update 2 False]),
     (155, [FE field_alternative 4 False, FE field_consequence 2 False]),
     (157, [FE field_body 2 False, FE field_body 3 False, FE field_body 4 False, FE field_body 5 False, FE field_condition 1 False]),
     (162, [FE field_condition 2 False, FE field_init 0 False]),
     (164, [FE field_condition 0 False, FE field_update 2 False, FE field_update 3 True]),
     (167, [FE field_init 0 False, FE field_update 3 False]),
     (169, [FE field_init 0 False, FE field_init 1 True]), (171, [FE field_value 3 False]),
     (172, [FE field_condition 1 False, FE field_init 0 False, FE field_update 3 False]),
     (175, [FE field_init 0 False, FE field_update 2 False, FE field_update 3 True]),
     (178, [FE field_condition 1 False, FE field_update 3 False]),
     (180, [FE field_update 0 True, FE field_update 1 True]),
     (182, [FE field_update 2 False, FE field_update 3 True]),
     (184, [FE field_body 2 False, FE field_body 3 False, FE field_body 4 False, FE field_body 5 False, FE field_body 6 False, FE field_condition 1 False]),
     (190, [FE field_alternative 6 False, FE field_consequence 4 False]),
     (192, [FE field_consequence 6 False]),
     (193, [FE field_condition 2 False, FE field_init 0 False, FE field_update 4 False]),
     (196, [FE field_init 0 False, FE field_update 3 False, FE field_update 4 True]),
     (199, [FE field_condition 3 False, FE field_init 0 False, FE field_init 1 True]),
     (202, [FE field_init 0 False, FE field_init 1 True, FE field_update 4 False]),
     (205, [FE field_condition 1 False, FE field_init 0 False, FE field_update 3 False, FE field_update 4 True])]"

definition ts_field_map_entries_3 :: "(nat \<times> TSFieldMapEntry list) list" where
  "ts_field_map_entries_3 = [
     (209, [FE field_condition 1 False, FE field_update 3 False, FE field_update 4 True]),
     (212, [FE field_condition 2 False, FE field_init 0 False, FE field_update 4 False, FE field_update 5 True]),
     (216, [FE field_condition 3 False, FE field_init 0 False, FE field_init 1 True, FE field_update 5 False]),
     (220, [FE field_init 0 False, FE field_init 1 True, FE field_update 4 False, FE field_update 5 True]),
     (224, [FE field_alternative 8 False, FE field_consequence 6 False]),
     (226, [FE field_condition 3 False, FE field_init 0 False, FE field_init 1 True, FE field_update 5 False, FE field_update 6 True])]"

definition ts_field_map_groups :: "(nat \<times> TSFieldMapEntry list) list" where
  "ts_field_map_groups = ts_field_map_entries_1 @ ts_field_map_entries_2 @ ts_field_map_entries_3"

text \<open>The flat array.\<close>

definition ts_field_map_entries :: "TSFieldMapEntry list" where
  "ts_field_map_entries = concat (map snd ts_field_map_groups)"

subsection \<open>Aliases\<close>

text \<open>A row of the alias table from the positions it names; 0 stands for no alias.\<close>

abbreviation (input) alias_row :: "(nat \<times> TSSymbol) list \<Rightarrow> TSSymbol list" where
  "alias_row es \<equiv> designated MAX_ALIAS_SEQUENCE_LENGTH 0 es"

definition ts_alias_sequences :: "TSSymbol list list" where
  "ts_alias_sequences = designated PRODUCTION_ID_COUNT (alias_row []) [
     (0, alias_row [(0, 0)]),
     (1, alias_row [(0, alias_sym_type_identifier)]),
     (4, alias_row [(0, sym_identifier)]),
     (7, alias_row [(1, alias_sym_type_identifier)]),
     (10, alias_row [(1, sym_identifier)])]"

definition ts_non_terminal_alias_map :: "nat list" where
  "ts_non_terminal_alias_map = [
     sym__get, 2,
       sym__get,
       sym_identifier,
     sym__set, 2,
       sym__set,
       sym_identifier,
     0]"

subsection \<open>Looking up a production\<close>

text \<open>The field entries of the slice and the alias row of a production id.\<close>

definition production_fields :: "nat \<Rightarrow> TSFieldMapEntry list" where
  "production_fields p =
     (let s = ts_field_map_slices ! p in
      take (slice_length s) (drop (slice_index s) ts_field_map_entries))"

definition production_aliases :: "nat \<Rightarrow> TSSymbol list" where
  "production_aliases p = ts_alias_sequences ! p"

subsection \<open>How many children a production mentions\<close>

text \<open>One more than the largest child index of its fields, and of its aliases.\<close>

definition field_width :: "nat \<Rightarrow> nat" where
  "field_width p = foldr (\<lambda>e w. max (Suc (child_index e)) w) (production_fields p) 0"

definition alias_width :: "nat \<Rightarrow> nat" where
  "alias_width p = length (dropWhile (\<lambda>a. a = 0) (rev (production_aliases p)))"

lemma foldr_max_le: "foldr (\<lambda>e w. max (f e) w) es 0 \<le> (n :: nat) \<longleftrightarrow> (\<forall>e \<in> set es. f e \<le> n)"
  by (induction es) auto

lemma field_width_le: "field_width p \<le> n \<longleftrightarrow> (\<forall>e \<in> set (production_fields p). child_index e < n)"
  by (simp add: field_width_def foldr_max_le Suc_le_eq)

lemma alias_width_le:
  assumes "alias_width p \<le> i" and "i < length (production_aliases p)"
  shows "production_aliases p ! i = 0"
proof -
  let ?xs = "production_aliases p" and ?z = "\<lambda>a :: nat. a = 0"
  have len: "length (takeWhile ?z (rev ?xs)) + alias_width p = length ?xs"
    unfolding alias_width_def by (simp add: takeWhile_dropWhile_len [of ?z "rev ?xs", simplified])
  let ?j = "length ?xs - Suc i"
  have j: "?j < length (takeWhile ?z (rev ?xs))" using len assms by arith
  then have "takeWhile ?z (rev ?xs) ! ?j = rev ?xs ! ?j" by (rule takeWhile_nth)
  moreover have "rev ?xs ! ?j = ?xs ! i" using assms(2) by (simp add: rev_nth)
  moreover have "takeWhile ?z (rev ?xs) ! ?j \<in> set (takeWhile ?z (rev ?xs))" using j by (rule nth_mem)
  ultimately show ?thesis by (metis set_takeWhileD)
qed

subsection \<open>The entries of a slice\<close>

lemma fields_laid_out_1: "laid_out 0 ts_field_map_entries_1 104"
  by (simp add: ts_field_map_entries_1_def)

lemma fields_laid_out_2: "laid_out 104 ts_field_map_entries_2 209"
  by (simp add: ts_field_map_entries_2_def)

lemma fields_laid_out_3: "laid_out 209 ts_field_map_entries_3 231"
  by (simp add: ts_field_map_entries_3_def)

lemma fields_laid_out: "laid_out 0 ts_field_map_groups 231"
  by (simp add: ts_field_map_groups_def laid_out_append [OF fields_laid_out_1]
      laid_out_append [OF fields_laid_out_2] fields_laid_out_3)

lemma entries_length: "length ts_field_map_entries = 231"
  using laid_out_length [OF fields_laid_out] by (simp add: ts_field_map_entries_def)

text \<open>The group of entries at an index, none for the slices of length 0.\<close>

definition slice_group :: "TSFieldMapSlice \<Rightarrow> TSFieldMapEntry list option" where
  "slice_group s = (if slice_length s = 0 then Some [] else map_of ts_field_map_groups (slice_index s))"

lemma field_group_keys: "distinct (map fst ts_field_map_groups)"
  by (rule laid_out_distinct [OF fields_laid_out])
    (simp add: ts_field_map_groups_def ts_field_map_entries_1_def ts_field_map_entries_2_def
      ts_field_map_entries_3_def)

lemma field_group_eqs_blocks:
  "list_all (\<lambda>(k, x). map_of ts_field_map_groups k = Some x) ts_field_map_entries_1"
  "list_all (\<lambda>(k, x). map_of ts_field_map_groups k = Some x) ts_field_map_entries_2"
  "list_all (\<lambda>(k, x). map_of ts_field_map_groups k = Some x) ts_field_map_entries_3"
  using map_of_all [OF field_group_keys]
  by (simp_all add: ts_field_map_groups_def list_all_append)

lemmas field_group_eqs =
  field_group_eqs_blocks(1) [unfolded ts_field_map_entries_1_def list_all_tens prod.case One_nat_def]
  field_group_eqs_blocks(2) [unfolded ts_field_map_entries_2_def list_all_tens prod.case One_nat_def]
  field_group_eqs_blocks(3) [unfolded ts_field_map_entries_3_def list_all_tens prod.case One_nat_def]

lemma field_slice_keys: "distinct (map fst ts_field_map_slices_table)"
  by (rule successively_distinct) (simp add: ts_field_map_slices_table_def)

lemma field_slice_all: "list_all (\<lambda>(k, x). map_of ts_field_map_slices_table k = Some x) ts_field_map_slices_table"
  by (rule map_of_all [OF field_slice_keys])

lemmas field_slice_eqs = field_slice_all [unfolded ts_field_map_slices_table_def list.pred_inject prod.case,
  folded ts_field_map_slices_table_def]

lemma field_slice_none: "map_of ts_field_map_slices_table 0 = None"
  "map_of ts_field_map_slices_table (Suc 0) = None" "map_of ts_field_map_slices_table 7 = None"
  by (simp_all add: ts_field_map_slices_table_def)

lemmas slice_simps = slice_group_def field_group_eqs

lemma designated_all:
  assumes "list_all (\<lambda>(i, x). P x) es" and "P z"
  shows "list_all P (designated n z es)"
  using assms by (auto simp: list_all_iff designated_def split: option.split dest!: map_of_SomeD)

lemma slice_groups:
  "list_all (\<lambda>s. \<exists>es. slice_group s = Some es \<and> length es = slice_length s) ts_field_map_slices"
  unfolding ts_field_map_slices_def
  by (rule designated_all) (simp_all add: slice_simps ts_field_map_slices_table_def)

lemma slice_group_entries:
  assumes "slice_group s = Some es" and "length es = slice_length s"
  shows "take (slice_length s) (drop (slice_index s) ts_field_map_entries) = es"
proof (cases "slice_length s = 0")
  case False
  with assms(1) have "(slice_index s, es) \<in> set ts_field_map_groups"
    by (simp add: slice_group_def map_of_SomeD)
  from laid_out_segment [OF fields_laid_out this] assms(2) show ?thesis by (simp add: ts_field_map_entries_def)
qed (use assms in simp)

lemma production_fields_group:
  assumes "p < PRODUCTION_ID_COUNT"
  shows "slice_group (ts_field_map_slices ! p) = Some (production_fields p)"
    and "length (production_fields p) = slice_length (ts_field_map_slices ! p)"
proof -
  have "p < length ts_field_map_slices" using assms by (simp add: ts_field_map_slices_def)
  with slice_groups obtain es where
    "slice_group (ts_field_map_slices ! p) = Some es" "length es = slice_length (ts_field_map_slices ! p)"
    by (auto simp: list_all_length)
  with slice_group_entries [OF this] show
    "slice_group (ts_field_map_slices ! p) = Some (production_fields p)"
    "length (production_fields p) = slice_length (ts_field_map_slices ! p)"
    by (simp_all add: production_fields_def Let_def)
qed

lemma production_fields_eq:
  "p < PRODUCTION_ID_COUNT \<Longrightarrow> production_fields p = the (slice_group (ts_field_map_slices ! p))"
  by (simp add: production_fields_group(1))

lemmas production_simps = production_fields_eq ts_field_map_slices_def designated_nth slice_simps
  field_slice_eqs field_slice_none

lemma field_width_eqs_1:
  "field_width 0 = 0" "field_width (Suc 0) = 0" "field_width 2 = 2" "field_width 3 = Suc 0"
  "field_width 4 = Suc 0" "field_width 5 = 3" "field_width 6 = Suc 0" "field_width 7 = 0"
  "field_width 8 = Suc 0" "field_width 9 = 3" "field_width 10 = 2" "field_width 11 = 3"
  "field_width 12 = 4" "field_width 13 = 4" "field_width 14 = 2" "field_width 15 = 4"
  "field_width 16 = 4" "field_width 17 = 4" "field_width 18 = 4" "field_width 19 = 2"
  "field_width 20 = 2" "field_width 21 = 2" "field_width 22 = 5" "field_width 23 = 5"
  "field_width 24 = 5"
  by (simp_all add: field_width_def production_simps)

lemma field_width_eqs_2:
  "field_width 25 = 2" "field_width 26 = 5" "field_width 27 = 5" "field_width 28 = 5"
  "field_width 29 = 5" "field_width 30 = 5" "field_width 31 = 5" "field_width 32 = 5"
  "field_width 33 = 5" "field_width 34 = 3" "field_width 35 = 3" "field_width 36 = 2"
  "field_width 37 = 2" "field_width 38 = 3" "field_width 39 = 3" "field_width 40 = 6"
  "field_width 41 = 6" "field_width 42 = 4" "field_width 43 = 6" "field_width 44 = 6"
  "field_width 45 = 6" "field_width 46 = 6" "field_width 47 = 6" "field_width 48 = 6"
  "field_width 49 = 6"
  by (simp_all add: field_width_def production_simps)

lemma field_width_eqs_3:
  "field_width 50 = 3" "field_width 51 = 4" "field_width 52 = Suc 0" "field_width 53 = 2"
  "field_width 54 = Suc 0" "field_width 55 = 2" "field_width 56 = 4" "field_width 57 = 7"
  "field_width 58 = 7" "field_width 59 = 7" "field_width 60 = 5" "field_width 61 = 4"
  "field_width 62 = 5" "field_width 63 = 3" "field_width 64 = 2" "field_width 65 = 3"
  "field_width 66 = 2" "field_width 67 = 2" "field_width 68 = 3" "field_width 69 = 2"
  "field_width 70 = 3" "field_width 71 = 3" "field_width 72 = 5" "field_width 73 = 6"
  "field_width 74 = 3"
  by (simp_all add: field_width_def production_simps)

lemma field_width_eqs_4:
  "field_width 75 = 4" "field_width 76 = 4" "field_width 77 = 2" "field_width 78 = 4"
  "field_width 79 = 4" "field_width 80 = 4" "field_width 81 = 4" "field_width 82 = 2"
  "field_width 83 = 4" "field_width 84 = 7" "field_width 85 = 7" "field_width 86 = 7"
  "field_width 87 = 5" "field_width 88 = 5" "field_width 89 = 4" "field_width 90 = 5"
  "field_width 91 = 5" "field_width 92 = 5" "field_width 93 = 6" "field_width 94 = 6"
  "field_width 95 = 6" "field_width 96 = 9" "field_width 97 = 7"
  by (simp_all add: field_width_def production_simps)

lemmas field_width_eqs = field_width_eqs_1 field_width_eqs_2 field_width_eqs_3 field_width_eqs_4

lemma alias_width_eq:
  assumes "p < PRODUCTION_ID_COUNT"
  shows "alias_width p = (if p = 1 \<or> p = 4 then 1 else if p = 7 \<or> p = 10 then 2 else 0)"
proof -
  have "production_aliases p =
      (if p = 1 then alias_row [(0, alias_sym_type_identifier)]
       else if p = 4 then alias_row [(0, sym_identifier)]
       else if p = 7 then alias_row [(1, alias_sym_type_identifier)]
       else if p = 10 then alias_row [(1, sym_identifier)]
       else alias_row [(0, 0)])"
    using assms by (auto simp: production_aliases_def ts_alias_sequences_def designated_nth)
      (simp_all add: designated_def upt_rec)
  then show ?thesis by (simp add: alias_width_def designated_def upt_rec)
qed

subsection \<open>Bounds\<close>

lemma entries_fields: "list_all (\<lambda>e. 0 < field_id e \<and> field_id e \<le> FIELD_COUNT) ts_field_map_entries"
  by (simp add: ts_field_map_entries_def ts_field_map_groups_def ts_field_map_entries_1_def
      ts_field_map_entries_2_def ts_field_map_entries_3_def)

text \<open>The array written out: no name for 0, then one name for each field.\<close>

lemma field_names_length: "length ts_field_names = Suc FIELD_COUNT"
  by (simp add: ts_field_names_def designated_unsized_def initialised_length_def)

lemma field_names_all: "list_all (\<lambda>f. ts_field_names ! f \<noteq> None) [1..<21]" "ts_field_names ! 0 = None"
  by (simp_all add: ts_field_names_def designated_unsized_def initialised_length_def designated_nth upt_rec)

lemma field_names_some:
  assumes "0 < f" and "f \<le> FIELD_COUNT"
  shows "f < length ts_field_names" and "ts_field_names ! f \<noteq> None"
  using assms field_names_all(1) by (auto simp: list_all_iff field_names_length)

text \<open>
  C22. The field tables fit together: the slice of every production id with fields is one whole
  group of \<^verbatim>\<open>ts_field_map_entries\<close>, at the index the designated initialiser names, so that the
  production has the entries written there and as many as the slice says; every one of them names a
  field that has a name.
\<close>

theorem field_map_in_bounds:
  assumes "p < PRODUCTION_ID_COUNT"
  shows "length (production_fields p) = slice_length (ts_field_map_slices ! p) \<and>
    (production_fields p = [] \<or>
      (slice_index (ts_field_map_slices ! p), production_fields p) \<in> set ts_field_map_groups) \<and>
    (\<forall>e \<in> set (production_fields p).
      field_id e < length ts_field_names \<and> ts_field_names ! field_id e \<noteq> None)"
proof -
  note g = production_fields_group [OF assms]
  have "field_id e < length ts_field_names \<and> ts_field_names ! field_id e \<noteq> None" if "e \<in> set (production_fields p)" for e
  proof -
    have "e \<in> set ts_field_map_entries"
      using that by (auto simp: production_fields_def Let_def dest!: in_set_takeD in_set_dropD)
    with entries_fields field_names_some show ?thesis by (simp add: list_all_iff)
  qed
  moreover have "production_fields p = [] \<or>
      (slice_index (ts_field_map_slices ! p), production_fields p) \<in> set ts_field_map_groups"
    using g by (auto simp: slice_group_def dest: map_of_SomeD split: if_splits)
  ultimately show ?thesis using g(2) by blast
qed

theorem field_map_in_bounds_witness:
  "length (production_fields 97) = slice_length (ts_field_map_slices ! 97)"
  using field_map_in_bounds [of 97] by simp

end
