(* ===== verification/Dart_Actions.thy ===== *)
theory Dart_Actions
  imports Dart_Fields
begin

text \<open>
  The table \<^verbatim>\<open>ts_parse_actions\<close> of \<^verbatim>\<open>parser.c\<close>: groups of a header and its actions, laid out one after
  the other in a flat array. Every group is written here with the index its designated initialiser
  names, in blocks of 150 lines of the source.
\<close>

subsection \<open>Actions\<close>

text \<open>
  The unions \<^verbatim>\<open>TSParseAction\<close> and \<^verbatim>\<open>TSParseActionEntry\<close>, with one constructor per macro that builds
  an action (\<^verbatim>\<open>SHIFT\<close>, \<^verbatim>\<open>SHIFT_REPEAT\<close>, \<^verbatim>\<open>SHIFT_EXTRA\<close>, \<^verbatim>\<open>REDUCE\<close>, \<^verbatim>\<open>RECOVER\<close>, \<^verbatim>\<open>ACCEPT_INPUT\<close>).
\<close>

datatype TSParseAction =
    SHIFT TSStateId
  | SHIFT_REPEAT TSStateId
  | SHIFT_EXTRA
  | REDUCE TSSymbol nat int nat
  | RECOVER
  | ACCEPT_INPUT

datatype TSParseActionEntry = ENTRY nat bool | ACTION TSParseAction

text \<open>A group: its index, the count and the reusable flag of its header, its actions.\<close>

type_synonym action_group = "nat \<times> nat \<times> bool \<times> TSParseAction list"

definition ts_parse_actions_1 :: "action_group list" where
  "ts_parse_actions_1 = [
     (0, 0, False, []), (1, 1, False, [RECOVER]), (3, 1, False, [SHIFT 3553]),
     (5, 1, True, [SHIFT 3550]), (7, 1, True, [SHIFT 3545]), (9, 1, True, [SHIFT 3574]),
     (11, 1, True, [SHIFT 3572]), (13, 1, True, [REDUCE sym_program 0 0 0]),
     (15, 1, False, [SHIFT 2063]), (17, 1, True, [SHIFT 1833]), (19, 1, True, [SHIFT 3045]),
     (21, 1, False, [SHIFT 1885]), (23, 1, False, [SHIFT 3541]), (25, 1, False, [SHIFT 2551]),
     (27, 1, False, [SHIFT 3539]), (29, 1, False, [SHIFT 3530]), (31, 1, False, [SHIFT 2619]),
     (33, 1, False, [SHIFT 1896]), (35, 1, False, [SHIFT 2190]), (37, 1, True, [SHIFT 3504]),
     (39, 1, False, [SHIFT 3076]), (41, 1, True, [SHIFT 1809]), (43, 1, False, [SHIFT 2271]),
     (45, 1, False, [SHIFT 1625]), (47, 1, False, [SHIFT 2834]), (49, 1, False, [SHIFT 2274]),
     (51, 1, False, [SHIFT 3479]), (53, 1, False, [SHIFT 3096]), (55, 1, False, [SHIFT 2488]),
     (57, 1, False, [SHIFT 3474]), (59, 1, False, [SHIFT 3103]), (61, 1, False, [SHIFT 2783]),
     (63, 1, False, [SHIFT 2629]), (65, 1, False, [SHIFT 1989]), (67, 1, False, [SHIFT 2481]),
     (69, 1, False, [SHIFT 2159]), (71, 1, False, [SHIFT 489]), (73, 1, True, [SHIFT 3335]),
     (75, 1, False, [SHIFT 981]), (77, 1, True, [SHIFT 981]), (79, 1, False, [SHIFT 982]),
     (81, 1, False, [SHIFT 985]), (83, 1, False, [SHIFT 2239]), (85, 1, False, [SHIFT 2240]),
     (87, 1, True, [SHIFT 2166]), (89, 1, True, [SHIFT 2183]), (91, 1, False, [SHIFT 2322]),
     (93, 1, False, [SHIFT 2330]), (95, 1, True, [SHIFT 2248]), (97, 1, True, [SHIFT 2254]),
     (99, 1, True, [SHIFT 3]), (101, 1, True, [SHIFT 1304]), (103, 1, True, [SHIFT 53]),
     (105, 1, False, [SHIFT 986]), (107, 1, True, [SHIFT 45]), (109, 1, False, [SHIFT 264]),
     (111, 1, True, [SHIFT 1804]), (113, 1, True, [SHIFT 456]), (115, 1, True, [SHIFT 176]),
     (117, 1, False, [SHIFT 1385]), (119, 1, True, [SHIFT 1217]), (121, 1, True, [SHIFT 1412]),
     (123, 1, False, [SHIFT 414]), (125, 1, False, [SHIFT 3216]), (127, 1, False, [SHIFT 37]),
     (129, 1, False, [SHIFT 3214]), (131, 1, False, [SHIFT 2698]), (133, 1, False, [SHIFT 191]),
     (135, 1, False, [SHIFT 189]), (137, 1, False, [SHIFT 3213]), (139, 1, False, [SHIFT 3498]),
     (141, 1, False, [SHIFT 3087]), (143, 1, True, [SHIFT 3007]), (145, 1, False, [SHIFT 2258]),
     (147, 1, False, [SHIFT 2693]), (149, 1, False, [SHIFT 3208]), (151, 1, False, [SHIFT 1001]),
     (153, 1, False, [SHIFT 2270]), (155, 1, False, [SHIFT 2169]), (157, 1, False, [SHIFT 1806]),
     (159, 1, False, [SHIFT 952]), (161, 1, False, [SHIFT 1103]), (163, 1, True, [SHIFT 378]),
     (165, 1, True, [SHIFT 382]), (167, 1, True, [SHIFT 192]),
     (169, 2, False, [REDUCE sym_switch_statement_case 5 0 0, SHIFT 489]),
     (172, 1, True, [SHIFT 4]), (174, 1, True, [REDUCE sym_switch_statement_case 5 0 0]),
     (176, 1, False, [SHIFT 413]), (178, 1, False, [REDUCE sym_switch_statement_case 5 0 0]),
     (180, 1, False, [SHIFT 3347]), (182, 1, False, [SHIFT 3210]),
     (184, 2, False, [REDUCE sym_switch_statement_case 3 0 0, SHIFT 489]),
     (187, 1, True, [REDUCE sym_switch_statement_case 3 0 0]),
     (189, 1, False, [REDUCE sym_switch_statement_case 3 0 0]),
     (191, 2, False, [REDUCE sym_switch_statement_case 4 0 0, SHIFT 489]),
     (194, 1, True, [REDUCE sym_switch_statement_case 4 0 0]),
     (196, 1, False, [REDUCE sym_switch_statement_case 4 0 0]),
     (198, 2, False, [REDUCE aux_sym_block_repeat1 2 0 0, SHIFT_REPEAT 489]),
     (201, 2, True, [REDUCE aux_sym_block_repeat1 2 0 0, SHIFT_REPEAT 3335]),
     (204, 2, False, [REDUCE aux_sym_block_repeat1 2 0 0, SHIFT_REPEAT 981]),
     (207, 2, True, [REDUCE aux_sym_block_repeat1 2 0 0, SHIFT_REPEAT 981]),
     (210, 2, False, [REDUCE aux_sym_block_repeat1 2 0 0, SHIFT_REPEAT 982]),
     (213, 2, False, [REDUCE aux_sym_block_repeat1 2 0 0, SHIFT_REPEAT 985]),
     (216, 2, False, [REDUCE aux_sym_block_repeat1 2 0 0, SHIFT_REPEAT 2239]),
     (219, 2, False, [REDUCE aux_sym_block_repeat1 2 0 0, SHIFT_REPEAT 2240]),
     (222, 2, True, [REDUCE aux_sym_block_repeat1 2 0 0, SHIFT_REPEAT 2166]),
     (225, 2, True, [REDUCE aux_sym_block_repeat1 2 0 0, SHIFT_REPEAT 2183]),
     (228, 2, False, [REDUCE aux_sym_block_repeat1 2 0 0, SHIFT_REPEAT 2322]),
     (231, 2, False, [REDUCE aux_sym_block_repeat1 2 0 0, SHIFT_REPEAT 2330]),
     (234, 2, True, [REDUCE aux_sym_block_repeat1 2 0 0, SHIFT_REPEAT 2248]),
     (237, 2, True, [REDUCE aux_sym_block_repeat1 2 0 0, SHIFT_REPEAT 2254]),
     (240, 2, True, [REDUCE aux_sym_block_repeat1 2 0 0, SHIFT_REPEAT 4]),
     (243, 1, True, [REDUCE aux_sym_block_repeat1 2 0 0]),
     (245, 2, True, [REDUCE aux_sym_block_repeat1 2 0 0, SHIFT_REPEAT 53]),
     (248, 2, False, [REDUCE aux_sym_block_repeat1 2 0 0, SHIFT_REPEAT 986]),
     (251, 2, True, [REDUCE aux_sym_block_repeat1 2 0 0, SHIFT_REPEAT 45]),
     (254, 2, False, [REDUCE aux_sym_block_repeat1 2 0 0, SHIFT_REPEAT 264]),
     (257, 2, True, [REDUCE aux_sym_block_repeat1 2 0 0, SHIFT_REPEAT 1804]),
     (260, 2, True, [REDUCE aux_sym_block_repeat1 2 0 0, SHIFT_REPEAT 456]),
     (263, 2, False, [REDUCE aux_sym_block_repeat1 2 0 0, SHIFT_REPEAT 1385]),
     (266, 2, True, [REDUCE aux_sym_block_repeat1 2 0 0, SHIFT_REPEAT 1217]),
     (269, 2, True, [REDUCE aux_sym_block_repeat1 2 0 0, SHIFT_REPEAT 1412]),
     (272, 2, False, [REDUCE aux_sym_block_repeat1 2 0 0, SHIFT_REPEAT 413]),
     (275, 2, False, [REDUCE aux_sym_block_repeat1 2 0 0, SHIFT_REPEAT 3216]),
     (278, 1, False, [REDUCE aux_sym_block_repeat1 2 0 0]),
     (280, 2, False, [REDUCE aux_sym_block_repeat1 2 0 0, SHIFT_REPEAT 37]),
     (283, 2, False, [REDUCE aux_sym_block_repeat1 2 0 0, SHIFT_REPEAT 3214]),
     (286, 2, False, [REDUCE aux_sym_block_repeat1 2 0 0, SHIFT_REPEAT 2698]),
     (289, 2, False, [REDUCE aux_sym_block_repeat1 2 0 0, SHIFT_REPEAT 191]),
     (292, 2, False, [REDUCE aux_sym_block_repeat1 2 0 0, SHIFT_REPEAT 189]),
     (295, 2, False, [REDUCE aux_sym_block_repeat1 2 0 0, SHIFT_REPEAT 3213]),
     (298, 2, False, [REDUCE aux_sym_block_repeat1 2 0 0, SHIFT_REPEAT 3347]),
     (301, 2, False, [REDUCE aux_sym_block_repeat1 2 0 0, SHIFT_REPEAT 3210]),
     (304, 2, True, [REDUCE aux_sym_block_repeat1 2 0 0, SHIFT_REPEAT 3007]),
     (307, 2, False, [REDUCE aux_sym_block_repeat1 2 0 0, SHIFT_REPEAT 2258]),
     (310, 2, False, [REDUCE aux_sym_block_repeat1 2 0 0, SHIFT_REPEAT 1896]),
     (313, 2, False, [REDUCE aux_sym_block_repeat1 2 0 0, SHIFT_REPEAT 2190]),
     (316, 2, False, [REDUCE aux_sym_block_repeat1 2 0 0, SHIFT_REPEAT 2693]),
     (319, 2, False, [REDUCE aux_sym_block_repeat1 2 0 0, SHIFT_REPEAT 3208]),
     (322, 2, False, [REDUCE aux_sym_block_repeat1 2 0 0, SHIFT_REPEAT 1001]),
     (325, 2, False, [REDUCE aux_sym_block_repeat1 2 0 0, SHIFT_REPEAT 2270]),
     (328, 2, False, [REDUCE aux_sym_block_repeat1 2 0 0, SHIFT_REPEAT 1625]),
     (331, 2, False, [REDUCE aux_sym_block_repeat1 2 0 0, SHIFT_REPEAT 2834]),
     (334, 2, False, [REDUCE aux_sym_block_repeat1 2 0 0, SHIFT_REPEAT 2783]),
     (337, 2, False, [REDUCE aux_sym_block_repeat1 2 0 0, SHIFT_REPEAT 2169]),
     (340, 2, False, [REDUCE aux_sym_block_repeat1 2 0 0, SHIFT_REPEAT 1806]),
     (343, 2, False, [REDUCE aux_sym_block_repeat1 2 0 0, SHIFT_REPEAT 2481]),
     (346, 2, False, [REDUCE aux_sym_block_repeat1 2 0 0, SHIFT_REPEAT 952]),
     (349, 2, False, [REDUCE aux_sym_block_repeat1 2 0 0, SHIFT_REPEAT 1103])]"

definition ts_parse_actions_2 :: "action_group list" where
  "ts_parse_actions_2 = [
     (352, 1, True, [SHIFT 1195]), (354, 1, True, [SHIFT 1218]), (356, 1, True, [SHIFT 491]),
     (358, 1, True, [REDUCE sym_switch_statement_default 3 0 0]), (360, 1, True, [SHIFT 444]),
     (362, 1, True, [REDUCE sym_switch_statement_default 2 0 0]), (364, 1, True, [SHIFT 977]),
     (366, 1, True, [SHIFT 485]), (368, 1, True, [SHIFT 1151]), (370, 1, True, [SHIFT 443]),
     (372, 1, True, [SHIFT 923]), (374, 1, True, [REDUCE sym_switch_statement_default 4 0 0]),
     (376, 1, True, [SHIFT 1244]), (378, 1, True, [SHIFT 2]), (380, 1, False, [SHIFT 411]),
     (382, 1, False, [SHIFT 3167]), (384, 1, False, [SHIFT 3497]), (386, 1, False, [SHIFT 3164]),
     (388, 1, False, [SHIFT 515]), (390, 1, True, [SHIFT 76]), (392, 1, True, [SHIFT 55]),
     (394, 1, True, [SHIFT 1214]), (396, 1, True, [SHIFT 345]), (398, 1, False, [SHIFT 677]),
     (400, 1, False, [SHIFT 1425]), (402, 1, True, [SHIFT 1425]), (404, 1, True, [SHIFT 61]),
     (406, 1, False, [SHIFT 1327]), (408, 1, False, [SHIFT 1217]), (410, 1, False, [SHIFT 410]),
     (412, 1, False, [SHIFT 3149]), (414, 1, False, [SHIFT 3481]), (416, 1, False, [SHIFT 3094]),
     (418, 1, False, [SHIFT 1807]), (420, 1, True, [SHIFT 860]), (422, 1, False, [SHIFT 513]),
     (424, 1, True, [SHIFT 48]), (426, 1, True, [SHIFT 43]), (428, 1, True, [SHIFT 418]),
     (430, 1, True, [SHIFT 2037]), (432, 1, False, [SHIFT 419]), (434, 1, False, [SHIFT 514]),
     (436, 1, True, [SHIFT 50]), (438, 1, True, [SHIFT 2011]), (440, 1, False, [SHIFT 516]),
     (442, 1, True, [SHIFT 75]), (444, 1, True, [SHIFT 1200]), (446, 1, False, [SHIFT 2113]),
     (448, 1, True, [SHIFT 883]), (450, 1, False, [SHIFT 630]), (452, 1, True, [SHIFT 1081]),
     (454, 1, False, [SHIFT 1923]), (456, 1, True, [SHIFT 1213]), (458, 1, True, [SHIFT 852]),
     (460, 1, True, [SHIFT 1046]), (462, 1, False, [SHIFT 517]), (464, 1, True, [SHIFT 49]),
     (466, 1, True, [SHIFT 44]), (468, 1, True, [REDUCE sym_rest_pattern 1 0 0]),
     (470, 1, True, [SHIFT 252]), (472, 1, False, [SHIFT 655]), (474, 1, True, [SHIFT 445]),
     (476, 1, False, [SHIFT 658]), (478, 1, False, [SHIFT 1927]), (480, 1, True, [SHIFT 2029]),
     (482, 1, True, [SHIFT 3015]), (484, 1, False, [SHIFT 645]), (486, 1, True, [SHIFT 64]),
     (488, 1, True, [SHIFT 1692]), (490, 1, False, [SHIFT 642]), (492, 1, False, [SHIFT 678]),
     (494, 1, False, [SHIFT 521]), (496, 1, True, [SHIFT 1212]), (498, 1, True, [SHIFT 46]),
     (500, 1, True, [SHIFT 1043]), (502, 1, True, [SHIFT 1045]), (504, 1, True, [SHIFT 849]),
     (506, 1, True, [SHIFT 1222]), (508, 1, True, [SHIFT 2119]), (510, 1, True, [SHIFT 1148]),
     (512, 1, True, [SHIFT 1149]), (514, 1, True, [SHIFT 1127]), (516, 1, True, [SHIFT 1125]),
     (518, 1, True, [SHIFT 1130]), (520, 1, True, [SHIFT 1129]), (522, 1, True, [SHIFT 1297]),
     (524, 1, True, [SHIFT 1283]), (526, 1, True, [SHIFT 909]), (528, 1, True, [SHIFT 915]),
     (530, 1, True, [SHIFT 2432]), (532, 1, True, [SHIFT 2376]), (534, 1, True, [SHIFT 1270]),
     (536, 1, True, [SHIFT 2389]), (538, 1, True, [SHIFT 1271]), (540, 1, True, [SHIFT 2130]),
     (542, 1, True, [SHIFT 1273]), (544, 1, True, [SHIFT 1274]), (546, 1, True, [SHIFT 2355]),
     (548, 1, True, [SHIFT 1286]), (550, 1, True, [SHIFT 1289]), (552, 1, True, [SHIFT 973]),
     (554, 1, True, [SHIFT 1223]), (556, 1, True, [SHIFT 903]), (558, 1, True, [SHIFT 1266]),
     (560, 1, True, [SHIFT 2391]), (562, 1, True, [SHIFT 1164]), (564, 1, True, [SHIFT 1246]),
     (566, 1, True, [SHIFT 1247]), (568, 1, True, [SHIFT 1237]), (570, 1, True, [SHIFT 1239]),
     (572, 1, True, [SHIFT 1166]), (574, 1, True, [SHIFT 2366]), (576, 1, True, [SHIFT 2346]),
     (578, 1, True, [SHIFT 1174]), (580, 1, True, [SHIFT 938]), (582, 1, True, [SHIFT 1299]),
     (584, 1, True, [SHIFT 940]), (586, 1, True, [SHIFT 1300]), (588, 1, True, [SHIFT 1175]),
     (590, 1, True, [SHIFT 917]), (592, 1, True, [SHIFT 2345]), (594, 1, True, [SHIFT 925]),
     (596, 1, True, [SHIFT 916]), (598, 1, True, [SHIFT 937]), (600, 1, True, [SHIFT 1179]),
     (602, 1, True, [SHIFT 958]), (604, 1, True, [SHIFT 1181]), (606, 1, True, [SHIFT 2405]),
     (608, 1, True, [SHIFT 960]), (610, 1, True, [SHIFT 2404]), (612, 1, True, [SHIFT 2105]),
     (614, 1, True, [SHIFT 1265]), (616, 1, True, [SHIFT 2341]), (618, 1, True, [SHIFT 2340]),
     (620, 1, False, [SHIFT 681]), (622, 1, True, [SHIFT 1108]), (624, 1, True, [SHIFT 1374]),
     (626, 1, True, [SHIFT 644]), (628, 1, True, [SHIFT 594]), (630, 1, True, [SHIFT 1092]),
     (632, 1, True, [SHIFT 2121]), (634, 1, True, [SHIFT 984]), (636, 1, True, [SHIFT 1160]),
     (638, 1, True, [SHIFT 1252]), (640, 1, True, [REDUCE sym__argument_list 3 0 0]),
     (642, 1, True, [REDUCE sym__argument_list 2 0 0]), (644, 1, True, [SHIFT 2012]),
     (646, 1, True, [SHIFT 2049]), (648, 1, True, [REDUCE sym__map_pattern_entry 1 0 0]),
     (650, 1, True, [SHIFT 976])]"

definition ts_parse_actions_3 :: "action_group list" where
  "ts_parse_actions_3 = [
     (652, 1, True, [SHIFT 1219]), (654, 1, True, [SHIFT 2046]), (656, 1, True, [SHIFT 1168]),
     (658, 1, True, [REDUCE sym__for_loop_parts 1 0 0]), (660, 1, True, [SHIFT 2383]),
     (662, 1, True, [SHIFT 2055]), (664, 1, True, [REDUCE sym__for_loop_parts 2 0 52]),
     (666, 1, True, [REDUCE sym__for_loop_parts 5 0 89]), (668, 1, True, [SHIFT 222]),
     (670, 1, True, [SHIFT 2392]), (672, 1, True, [REDUCE sym__for_loop_parts 2 0 54]),
     (674, 1, True, [REDUCE sym__for_loop_parts 2 0 0]),
     (676, 1, True, [REDUCE sym__for_loop_parts 3 0 69]),
     (678, 1, True, [REDUCE sym__for_loop_parts 4 0 74]),
     (680, 1, True, [REDUCE sym__for_loop_parts 4 0 77]),
     (682, 1, True, [REDUCE sym__for_loop_parts 3 0 54]),
     (684, 1, True, [REDUCE sym__for_loop_parts 3 0 67]), (686, 1, False, [SHIFT 271]),
     (688, 1, True, [SHIFT 458]), (690, 1, False, [SHIFT 1357]), (692, 1, False, [SHIFT 429]),
     (694, 1, False, [SHIFT 1281]), (696, 1, False, [SHIFT 604]), (698, 1, True, [SHIFT 3284]),
     (700, 1, False, [SHIFT 1192]), (702, 1, True, [SHIFT 1192]), (704, 1, False, [SHIFT 1193]),
     (706, 1, False, [SHIFT 1194]), (708, 1, False, [SHIFT 2256]), (710, 1, False, [SHIFT 2255]),
     (712, 1, True, [SHIFT 2153]), (714, 1, True, [SHIFT 2157]), (716, 1, False, [SHIFT 2324]),
     (718, 1, False, [SHIFT 2328]), (720, 1, True, [SHIFT 2244]), (722, 1, True, [SHIFT 2243]),
     (724, 1, True, [SHIFT 73]), (726, 1, True, [SHIFT 51]), (728, 1, False, [SHIFT 1188]),
     (730, 1, True, [SHIFT 47]), (732, 1, False, [SHIFT 273]), (734, 1, True, [SHIFT 459]),
     (736, 1, False, [SHIFT 1359]), (738, 1, False, [SHIFT 434]), (740, 1, False, [SHIFT 3010]),
     (742, 1, False, [SHIFT 1120]), (744, 1, False, [SHIFT 1924]), (746, 1, False, [SHIFT 1132]),
     (748, 1, False, [SHIFT 239]), (750, 1, False, [SHIFT 261]), (752, 1, False, [SHIFT 2363]),
     (754, 1, False, [SHIFT 605]), (756, 1, True, [SHIFT 86]), (758, 1, True, [SHIFT 85]),
     (760, 1, True, [SHIFT 60]), (762, 1, False, [SHIFT 306]), (764, 1, False, [SHIFT 532]),
     (766, 1, True, [SHIFT 123]), (768, 1, True, [SHIFT 125]), (770, 1, True, [SHIFT 58]),
     (772, 1, False, [SHIFT 301]), (774, 1, False, [SHIFT 640]), (776, 1, True, [SHIFT 3549]),
     (778, 1, False, [SHIFT 1295]), (780, 1, True, [SHIFT 1295]), (782, 1, False, [SHIFT 1294]),
     (784, 1, False, [SHIFT 1290]), (786, 1, False, [SHIFT 2253]), (788, 1, False, [SHIFT 2251]),
     (790, 1, True, [SHIFT 2154]), (792, 1, True, [SHIFT 2162]), (794, 1, False, [SHIFT 2318]),
     (796, 1, False, [SHIFT 2319]), (798, 1, True, [SHIFT 2250]), (800, 1, True, [SHIFT 2249]),
     (802, 1, True, [SHIFT 114]), (804, 1, True, [SHIFT 113]), (806, 1, False, [SHIFT 1288]),
     (808, 1, True, [SHIFT 57]), (810, 1, False, [SHIFT 305]), (812, 1, True, [SHIFT 457]),
     (814, 1, False, [SHIFT 1387]), (816, 1, False, [SHIFT 426]), (818, 1, False, [SHIFT 3011]),
     (820, 1, False, [SHIFT 1916]), (822, 1, False, [SHIFT 1296]), (824, 1, False, [SHIFT 282]),
     (826, 1, False, [SHIFT 307]), (828, 1, True, [SHIFT 460]), (830, 1, False, [SHIFT 1394]),
     (832, 1, False, [SHIFT 433]), (834, 1, False, [SHIFT 290]), (836, 1, False, [SHIFT 288]),
     (838, 1, False, [SHIFT 303]), (840, 1, False, [SHIFT 302]), (842, 1, False, [SHIFT 1086]),
     (844, 1, False, [SHIFT 832]), (846, 1, False, [SHIFT 1004]), (848, 1, False, [SHIFT 2041]),
     (850, 1, True, [SHIFT 3416]), (852, 1, False, [SHIFT 2134]), (854, 1, True, [SHIFT 2134]),
     (856, 1, False, [SHIFT 2133]), (858, 1, False, [SHIFT 2128]), (860, 1, False, [SHIFT 2227]),
     (862, 1, False, [SHIFT 2226]), (864, 1, True, [SHIFT 2160]), (866, 1, True, [SHIFT 2170]),
     (868, 1, False, [SHIFT 2306]), (870, 1, False, [SHIFT 2304]), (872, 1, True, [SHIFT 2214]),
     (874, 1, True, [SHIFT 2213]), (876, 1, True, [SHIFT 174]), (878, 1, True, [SHIFT 540]),
     (880, 1, True, [SHIFT 383]), (882, 1, False, [SHIFT 2125]), (884, 1, True, [SHIFT 376]),
     (886, 1, False, [SHIFT 786]), (888, 1, True, [SHIFT 2591]), (890, 1, False, [SHIFT 3317]),
     (892, 1, False, [SHIFT 1434]), (894, 1, False, [SHIFT 1935]),
     (896, 2, False, [REDUCE sym_label 2 0 0, SHIFT 1921]),
     (899, 2, True, [REDUCE sym_label 2 0 0, SHIFT 3416]),
     (902, 2, False, [REDUCE sym_label 2 0 0, SHIFT 2134]),
     (905, 2, True, [REDUCE sym_label 2 0 0, SHIFT 2134]),
     (908, 2, False, [REDUCE sym_label 2 0 0, SHIFT 2133]),
     (911, 2, False, [REDUCE sym_label 2 0 0, SHIFT 2128]),
     (914, 2, False, [REDUCE sym_label 2 0 0, SHIFT 2227]),
     (917, 2, False, [REDUCE sym_label 2 0 0, SHIFT 2226]),
     (920, 2, True, [REDUCE sym_label 2 0 0, SHIFT 2160]),
     (923, 2, True, [REDUCE sym_label 2 0 0, SHIFT 2170]),
     (926, 2, False, [REDUCE sym_label 2 0 0, SHIFT 2306]),
     (929, 2, False, [REDUCE sym_label 2 0 0, SHIFT 2304]),
     (932, 2, True, [REDUCE sym_label 2 0 0, SHIFT 2214]),
     (935, 2, True, [REDUCE sym_label 2 0 0, SHIFT 2213]),
     (938, 2, True, [REDUCE sym_label 2 0 0, SHIFT 174]),
     (941, 2, True, [REDUCE sym_label 2 0 0, SHIFT 383]),
     (944, 2, False, [REDUCE sym_label 2 0 0, SHIFT 2125]),
     (947, 2, True, [REDUCE sym_label 2 0 0, SHIFT 376]),
     (950, 1, False, [REDUCE sym_label 2 0 0]),
     (952, 2, False, [REDUCE sym_label 2 0 0, SHIFT 786]),
     (955, 1, True, [REDUCE sym_label 2 0 0]),
     (957, 2, False, [REDUCE sym_label 2 0 0, SHIFT 2591]),
     (960, 2, False, [REDUCE sym_label 2 0 0, SHIFT 1935]), (963, 1, False, [SHIFT 2039]),
     (965, 1, True, [SHIFT 65]), (967, 1, False, [SHIFT 1921]), (969, 1, True, [SHIFT 2015]),
     (971, 1, True, [SHIFT 403])]"

definition ts_parse_actions_4 :: "action_group list" where
  "ts_parse_actions_4 = [
     (973, 1, False, [REDUCE sym_block 2 0 0]), (975, 1, True, [REDUCE sym_block 2 0 0]),
     (977, 2, True, [REDUCE sym_set_or_map_literal 2 0 0, REDUCE sym_block 2 0 0]),
     (980, 1, True, [REDUCE sym_set_or_map_literal 2 0 0]),
     (982, 1, False, [REDUCE sym_map_pattern 2 0 0]),
     (984, 1, False, [REDUCE sym_set_or_map_literal 2 0 0]),
     (986, 2, False, [REDUCE sym_set_or_map_literal 2 0 0, REDUCE sym_block 2 0 0]),
     (989, 1, True, [SHIFT 2025]), (991, 1, True, [SHIFT 2050]), (993, 1, True, [SHIFT 2056]),
     (995, 1, True, [SHIFT 2028]), (997, 1, False, [SHIFT 2032]), (999, 1, True, [SHIFT 2047]),
     (1001, 1, True, [SHIFT 2353]), (1003, 1, True, [SHIFT 2390]), (1005, 1, True, [SHIFT 1276]),
     (1007, 1, True, [SHIFT 2017]), (1009, 1, True, [SHIFT 2045]), (1011, 1, True, [SHIFT 1272]),
     (1013, 1, True, [SHIFT 2034]), (1015, 1, True, [SHIFT 934]), (1017, 1, True, [SHIFT 1173]),
     (1019, 1, True, [SHIFT 1176]), (1021, 1, True, [SHIFT 2052]), (1023, 1, True, [SHIFT 1002]),
     (1025, 1, False, [SHIFT 3165]), (1027, 1, False, [SHIFT 3144]),
     (1029, 1, False, [SHIFT 3119]), (1031, 1, False, [SHIFT 3177]),
     (1033, 1, True, [REDUCE sym_program 1 0 0]), (1035, 1, True, [REDUCE sym_program 3 0 0]),
     (1037, 1, True, [REDUCE sym_program 2 0 0]), (1039, 1, True, [REDUCE sym_block 3 0 0]),
     (1041, 1, False, [REDUCE sym_block 3 0 0]), (1043, 1, True, [REDUCE sym__semicolon 1 0 0]),
     (1045, 1, False, [REDUCE sym__semicolon 1 0 0]),
     (1047, 1, True, [REDUCE sym_function_body 1 0 0]),
     (1049, 1, False, [REDUCE sym_function_body 1 0 0]),
     (1051, 1, True, [REDUCE sym_function_body 3 0 0]),
     (1053, 1, False, [REDUCE sym_function_body 3 0 0]),
     (1055, 1, True, [REDUCE sym_function_body 2 0 0]),
     (1057, 1, False, [REDUCE sym_function_body 2 0 0]),
     (1059, 1, True, [REDUCE sym_function_body 4 0 0]),
     (1061, 1, False, [REDUCE sym_function_body 4 0 0]),
     (1063, 1, True, [REDUCE sym_program 4 0 0]),
     (1065, 1, True, [REDUCE sym_cascade_section 3 0 0]), (1067, 1, False, [SHIFT 1326]),
     (1069, 1, True, [SHIFT 1326]), (1071, 1, False, [REDUCE sym_cascade_section 3 0 0]),
     (1073, 1, True, [REDUCE sym_cascade_section 2 0 0]),
     (1075, 1, False, [REDUCE sym_cascade_section 2 0 0]), (1077, 1, False, [SHIFT 932]),
     (1079, 1, True, [SHIFT 3383]), (1081, 1, False, [SHIFT 2348]),
     (1083, 1, True, [SHIFT 2348]), (1085, 1, False, [SHIFT 2350]),
     (1087, 1, False, [SHIFT 2351]), (1089, 1, False, [SHIFT 2196]),
     (1091, 1, False, [SHIFT 2198]), (1093, 1, True, [SHIFT 2178]),
     (1095, 1, True, [SHIFT 2181]), (1097, 1, False, [SHIFT 2294]),
     (1099, 1, False, [SHIFT 2301]), (1101, 1, True, [SHIFT 2211]),
     (1103, 1, True, [SHIFT 2215]), (1105, 1, True, [SHIFT 91]), (1107, 1, True, [SHIFT 92]),
     (1109, 1, False, [SHIFT 2359]), (1111, 1, True, [SHIFT 59]), (1113, 1, False, [SHIFT 3012]),
     (1115, 1, False, [SHIFT 1917]), (1117, 1, False, [SHIFT 2335]),
     (1119, 1, False, [SHIFT 1207]), (1121, 1, False, [SHIFT 895]),
     (1123, 1, False, [SHIFT 1044]), (1125, 1, False, [SHIFT 1060]),
     (1127, 1, False, [REDUCE sym_try_statement 2 0 8]),
     (1129, 1, True, [REDUCE sym_try_statement 2 0 8]), (1131, 1, False, [SHIFT 2083]),
     (1133, 1, False, [SHIFT 3152]), (1135, 1, False, [SHIFT 3153]),
     (1137, 1, False, [REDUCE sym_try_statement 1 0 8]),
     (1139, 1, True, [REDUCE sym_try_statement 1 0 8]),
     (1141, 1, True, [REDUCE sym_program 5 0 0]),
     (1143, 1, False, [REDUCE aux_sym_try_statement_repeat1 2 0 0]),
     (1145, 1, True, [REDUCE aux_sym_try_statement_repeat1 2 0 0]),
     (1147, 2, False, [REDUCE aux_sym_try_statement_repeat1 2 0 0, SHIFT_REPEAT 2083]),
     (1150, 2, False, [REDUCE aux_sym_try_statement_repeat1 2 0 0, SHIFT_REPEAT 3152]),
     (1153, 1, True, [REDUCE sym_cascade_section 4 0 0]),
     (1155, 1, False, [REDUCE sym_cascade_section 4 0 0]),
     (1157, 2, False, [REDUCE aux_sym_string_literal_repeat1 2 0 0, SHIFT_REPEAT 2239]),
     (1160, 2, False, [REDUCE aux_sym_string_literal_repeat1 2 0 0, SHIFT_REPEAT 2240]),
     (1163, 2, True, [REDUCE aux_sym_string_literal_repeat1 2 0 0, SHIFT_REPEAT 2166]),
     (1166, 2, True, [REDUCE aux_sym_string_literal_repeat1 2 0 0, SHIFT_REPEAT 2183]),
     (1169, 2, False, [REDUCE aux_sym_string_literal_repeat1 2 0 0, SHIFT_REPEAT 2322]),
     (1172, 2, False, [REDUCE aux_sym_string_literal_repeat1 2 0 0, SHIFT_REPEAT 2330]),
     (1175, 2, True, [REDUCE aux_sym_string_literal_repeat1 2 0 0, SHIFT_REPEAT 2248]),
     (1178, 2, True, [REDUCE aux_sym_string_literal_repeat1 2 0 0, SHIFT_REPEAT 2254]),
     (1181, 1, True, [REDUCE aux_sym_string_literal_repeat1 2 0 0]),
     (1183, 1, False, [REDUCE aux_sym_string_literal_repeat1 2 0 0]),
     (1185, 1, True, [REDUCE sym_string_literal 1 0 0]),
     (1187, 1, False, [REDUCE sym_string_literal 1 0 0]),
     (1189, 1, True, [REDUCE aux_sym_program_repeat4 2 0 0]),
     (1191, 2, False, [REDUCE aux_sym_program_repeat4 2 0 0, SHIFT_REPEAT 2063]),
     (1194, 2, True, [REDUCE aux_sym_program_repeat4 2 0 0, SHIFT_REPEAT 1833]),
     (1197, 2, True, [REDUCE aux_sym_program_repeat4 2 0 0, SHIFT_REPEAT 3007]),
     (1200, 2, False, [REDUCE aux_sym_program_repeat4 2 0 0, SHIFT_REPEAT 3541]),
     (1203, 2, False, [REDUCE aux_sym_program_repeat4 2 0 0, SHIFT_REPEAT 2551]),
     (1206, 2, False, [REDUCE aux_sym_program_repeat4 2 0 0, SHIFT_REPEAT 3539]),
     (1209, 2, False, [REDUCE aux_sym_program_repeat4 2 0 0, SHIFT_REPEAT 3530]),
     (1212, 2, False, [REDUCE aux_sym_program_repeat4 2 0 0, SHIFT_REPEAT 2619]),
     (1215, 2, False, [REDUCE aux_sym_program_repeat4 2 0 0, SHIFT_REPEAT 1896]),
     (1218, 2, False, [REDUCE aux_sym_program_repeat4 2 0 0, SHIFT_REPEAT 2190]),
     (1221, 2, False, [REDUCE aux_sym_program_repeat4 2 0 0, SHIFT_REPEAT 1625]),
     (1224, 2, False, [REDUCE aux_sym_program_repeat4 2 0 0, SHIFT_REPEAT 2834]),
     (1227, 2, False, [REDUCE aux_sym_program_repeat4 2 0 0, SHIFT_REPEAT 3479]),
     (1230, 2, False, [REDUCE aux_sym_program_repeat4 2 0 0, SHIFT_REPEAT 3096]),
     (1233, 2, False, [REDUCE aux_sym_program_repeat4 2 0 0, SHIFT_REPEAT 2488]),
     (1236, 2, False, [REDUCE aux_sym_program_repeat4 2 0 0, SHIFT_REPEAT 3474]),
     (1239, 2, False, [REDUCE aux_sym_program_repeat4 2 0 0, SHIFT_REPEAT 3103]),
     (1242, 2, False, [REDUCE aux_sym_program_repeat4 2 0 0, SHIFT_REPEAT 2783]),
     (1245, 2, False, [REDUCE aux_sym_program_repeat4 2 0 0, SHIFT_REPEAT 2629]),
     (1248, 2, False, [REDUCE aux_sym_program_repeat4 2 0 0, SHIFT_REPEAT 1989]),
     (1251, 2, False, [REDUCE aux_sym_program_repeat4 2 0 0, SHIFT_REPEAT 2481]),
     (1254, 2, False, [REDUCE aux_sym_program_repeat4 2 0 0, SHIFT_REPEAT 2159]),
     (1257, 1, True, [REDUCE sym__expression 1 0 0]), (1259, 1, True, [SHIFT 371]),
     (1261, 1, False, [SHIFT 289]), (1263, 1, True, [SHIFT 372]), (1265, 1, False, [SHIFT 373]),
     (1267, 1, True, [SHIFT 350]), (1269, 1, False, [SHIFT 341]), (1271, 1, True, [SHIFT 1402]),
     (1273, 1, False, [SHIFT 1402]), (1275, 1, True, [SHIFT 1401]),
     (1277, 1, False, [REDUCE sym__expression 1 0 0]), (1279, 1, True, [SHIFT 2455]),
     (1281, 1, True, [SHIFT 2659]), (1283, 2, True, [REDUCE sym__expression 1 0 0, SHIFT 2511]),
     (1286, 1, True, [SHIFT 1395]), (1288, 1, True, [SHIFT 1399]),
     (1290, 1, True, [REDUCE sym_program 6 0 0]),
     (1292, 1, True, [REDUCE aux_sym_cascade_section_repeat2 2 0 0]),
     (1294, 2, True, [REDUCE aux_sym_cascade_section_repeat2 2 0 0, SHIFT_REPEAT 217]),
     (1297, 1, False, [REDUCE aux_sym_cascade_section_repeat2 2 0 0]),
     (1299, 2, False, [REDUCE aux_sym_cascade_section_repeat2 2 0 0, SHIFT_REPEAT 3183]),
     (1302, 2, False, [REDUCE aux_sym_cascade_section_repeat2 2 0 0, SHIFT_REPEAT 3386]),
     (1305, 2, False, [REDUCE aux_sym_cascade_section_repeat2 2 0 0, SHIFT_REPEAT 3387]),
     (1308, 1, False, [REDUCE sym__on_part 3 0 0]),
     (1310, 1, True, [REDUCE sym__on_part 3 0 0])]"

definition ts_parse_actions_5 :: "action_group list" where
  "ts_parse_actions_5 = [
     (1312, 1, False, [REDUCE sym__try_head 2 0 19]),
     (1314, 1, True, [REDUCE sym__try_head 2 0 19]),
     (1316, 1, False, [REDUCE sym__on_part 4 0 0]), (1318, 1, True, [REDUCE sym__on_part 4 0 0]),
     (1320, 1, False, [REDUCE sym__type_name 1 0 1]),
     (1322, 1, True, [REDUCE sym__primary 1 0 0]),
     (1324, 3, True, [REDUCE sym__primary 1 0 0, REDUCE sym__type_name 1 0 1, SHIFT 709]),
     (1328, 1, False, [REDUCE sym_assignable_expression 1 0 0]),
     (1330, 1, True, [REDUCE sym_assignable_expression 1 0 0]),
     (1332, 1, False, [REDUCE sym__primary 1 0 0]),
     (1334, 2, False, [REDUCE sym__primary 1 0 0, REDUCE sym__type_name 1 0 1]),
     (1337, 3, False, [REDUCE sym__primary 1 0 0, REDUCE sym__type_name 1 0 1, SHIFT 2297]),
     (1341, 3, False, [REDUCE sym__primary 1 0 0, REDUCE sym__type_name 1 0 1, SHIFT 3499]),
     (1345, 1, False, [REDUCE sym__on_part 2 0 0]), (1347, 1, True, [REDUCE sym__on_part 2 0 0]),
     (1349, 1, False, [REDUCE aux_sym_try_statement_repeat1 1 0 0]),
     (1351, 1, True, [REDUCE aux_sym_try_statement_repeat1 1 0 0]),
     (1353, 1, True, [REDUCE aux_sym_additive_expression_repeat1 2 0 0]),
     (1355, 1, False, [REDUCE aux_sym_additive_expression_repeat1 2 0 0]),
     (1357, 1, True, [REDUCE aux_sym_shift_expression_repeat1 2 0 0]),
     (1359, 1, False, [REDUCE aux_sym_shift_expression_repeat1 2 0 0]),
     (1361, 1, True, [REDUCE aux_sym_cascade_section_repeat1 2 0 0]),
     (1363, 2, True, [REDUCE aux_sym_cascade_section_repeat1 2 0 0, SHIFT_REPEAT 164]),
     (1366, 1, False, [REDUCE aux_sym_cascade_section_repeat1 2 0 0]),
     (1368, 2, False, [REDUCE aux_sym_cascade_section_repeat1 2 0 0, SHIFT_REPEAT 2030]),
     (1371, 1, True, [REDUCE sym__cascade_subsection 2 0 0]),
     (1373, 2, True, [REDUCE sym__cascade_subsection 2 0 0, SHIFT 164]),
     (1376, 1, False, [REDUCE sym__cascade_subsection 2 0 0]),
     (1378, 2, False, [REDUCE sym__cascade_subsection 2 0 0, SHIFT 2030]),
     (1381, 1, True, [REDUCE aux_sym__if_null_expression 2 0 36]),
     (1383, 1, False, [REDUCE aux_sym__if_null_expression 2 0 36]),
     (1385, 1, True, [REDUCE sym__cascade_subsection 1 0 0]),
     (1387, 2, True, [REDUCE sym__cascade_subsection 1 0 0, SHIFT 164]),
     (1390, 1, False, [REDUCE sym__cascade_subsection 1 0 0]),
     (1392, 2, False, [REDUCE sym__cascade_subsection 1 0 0, SHIFT 2030]),
     (1395, 1, True, [REDUCE aux_sym_bitwise_xor_expression_repeat1 2 0 0]),
     (1397, 1, False, [REDUCE aux_sym_bitwise_xor_expression_repeat1 2 0 0]),
     (1399, 1, True, [REDUCE sym_equality_expression 3 0 0]),
     (1401, 1, False, [REDUCE sym_equality_expression 3 0 0]),
     (1403, 2, True, [REDUCE sym_equality_expression 3 0 0, SHIFT 372]),
     (1406, 1, True, [REDUCE aux_sym_bitwise_and_expression_repeat1 2 0 0]),
     (1408, 1, False, [REDUCE aux_sym_bitwise_and_expression_repeat1 2 0 0]),
     (1410, 1, True, [REDUCE sym__expression_without_cascade 1 0 0]),
     (1412, 1, False, [REDUCE sym__expression_without_cascade 1 0 0]),
     (1414, 1, True, [REDUCE aux_sym_logical_or_expression_repeat1 2 0 0]),
     (1416, 1, False, [REDUCE aux_sym_logical_or_expression_repeat1 2 0 0]),
     (1418, 1, True, [REDUCE aux_sym_bitwise_or_expression_repeat1 2 0 0]),
     (1420, 1, False, [REDUCE aux_sym_bitwise_or_expression_repeat1 2 0 0]),
     (1422, 1, True, [REDUCE sym_relational_expression 3 0 0]),
     (1424, 1, False, [REDUCE sym_relational_expression 3 0 0]),
     (1426, 2, False, [REDUCE sym_relational_expression 3 0 0, SHIFT 1425]),
     (1429, 2, True, [REDUCE sym_relational_expression 3 0 0, SHIFT 1425]),
     (1432, 1, True, [REDUCE aux_sym_logical_and_expression_repeat1 2 0 0]),
     (1434, 1, False, [REDUCE aux_sym_logical_and_expression_repeat1 2 0 0]),
     (1436, 1, True, [SHIFT 333]), (1438, 1, False, [SHIFT 276]), (1440, 1, True, [SHIFT 337]),
     (1442, 1, False, [SHIFT 364]), (1444, 1, True, [SHIFT 342]), (1446, 1, False, [SHIFT 314]),
     (1448, 1, False, [SHIFT 2659]), (1450, 2, True, [REDUCE sym__expression 1 0 0, SHIFT 2501]),
     (1453, 2, True, [REDUCE aux_sym_cascade_section_repeat2 2 0 0, SHIFT_REPEAT 211]),
     (1456, 2, False, [REDUCE aux_sym_cascade_section_repeat2 2 0 0, SHIFT_REPEAT 3174]),
     (1459, 2, False, [REDUCE aux_sym_cascade_section_repeat2 2 0 0, SHIFT_REPEAT 3405]),
     (1462, 2, False, [REDUCE aux_sym_cascade_section_repeat2 2 0 0, SHIFT_REPEAT 3406]),
     (1465, 1, True, [SHIFT 2511]),
     (1467, 1, False, [REDUCE sym_local_variable_declaration 2 0 0]),
     (1469, 1, True, [REDUCE sym_local_variable_declaration 2 0 0]),
     (1471, 1, False, [REDUCE sym_local_variable_declaration 3 0 0]),
     (1473, 1, True, [REDUCE sym_local_variable_declaration 3 0 0]),
     (1475, 4, True, [REDUCE sym__primary 1 0 0, REDUCE sym_constant_pattern 1 0 0, REDUCE sym__type_name 1 0 1, REDUCE sym__simple_formal_parameter 1 0 0]),
     (1480, 1, True, [SHIFT 375]),
     (1482, 3, False, [REDUCE sym__primary 1 0 0, REDUCE sym_constant_pattern 1 0 0, REDUCE sym__type_name 1 0 1]),
     (1486, 2, False, [REDUCE sym__primary 1 0 0, REDUCE sym_constant_pattern 1 0 0]),
     (1489, 2, True, [REDUCE sym__primary 1 0 0, REDUCE sym_constant_pattern 1 0 0]),
     (1492, 3, True, [REDUCE sym__primary 1 0 0, REDUCE sym_constant_pattern 1 0 0, REDUCE sym__simple_formal_parameter 1 0 0]),
     (1496, 2, False, [REDUCE sym_assignable_expression 1 0 0, REDUCE sym__simple_formal_parameter 1 0 0]),
     (1499, 2, True, [REDUCE sym__primary 1 0 0, REDUCE sym__simple_formal_parameter 1 0 0]),
     (1502, 1, True, [SHIFT 1233]), (1504, 1, False, [REDUCE sym_return_statement 3 0 0]),
     (1506, 1, True, [REDUCE sym_return_statement 3 0 0]),
     (1508, 1, False, [REDUCE sym_expression_statement 2 0 0]),
     (1510, 1, True, [REDUCE sym_expression_statement 2 0 0]),
     (1512, 1, False, [REDUCE sym_if_statement 9 0 96]),
     (1514, 1, True, [REDUCE sym_if_statement 9 0 96]),
     (1516, 2, True, [REDUCE sym__primary 1 0 0, REDUCE sym__type_name 1 0 1]),
     (1519, 1, False, [REDUCE sym_continue_statement 3 0 0]),
     (1521, 1, True, [REDUCE sym_continue_statement 3 0 0]),
     (1523, 1, False, [REDUCE sym_while_statement 3 0 34]),
     (1525, 1, True, [REDUCE sym_while_statement 3 0 34]),
     (1527, 1, False, [REDUCE sym_switch_statement 3 0 34]),
     (1529, 1, True, [REDUCE sym_switch_statement 3 0 34]),
     (1531, 1, False, [REDUCE sym_switch_block 3 0 0]),
     (1533, 1, True, [REDUCE sym_switch_block 3 0 0]),
     (1535, 1, False, [REDUCE sym_break_statement 2 0 0]),
     (1537, 1, True, [REDUCE sym_break_statement 2 0 0]),
     (1539, 1, False, [REDUCE sym__statement 1 0 0]),
     (1541, 1, True, [REDUCE sym__statement 1 0 0]),
     (1543, 1, False, [REDUCE sym_finally_clause 2 0 0]),
     (1545, 1, True, [REDUCE sym_finally_clause 2 0 0]),
     (1547, 1, False, [REDUCE sym_try_statement 3 0 8]),
     (1549, 1, True, [REDUCE sym_try_statement 3 0 8]),
     (1551, 1, False, [REDUCE sym_yield_statement 3 0 0]),
     (1553, 1, True, [REDUCE sym_yield_statement 3 0 0]),
     (1555, 1, False, [REDUCE sym_if_statement 7 0 86]),
     (1557, 1, True, [REDUCE sym_if_statement 7 0 86]), (1559, 1, False, [SHIFT 31]),
     (1561, 1, False, [REDUCE sym__statement 1 1 0]),
     (1563, 1, True, [REDUCE sym__statement 1 1 0]),
     (1565, 1, False, [REDUCE sym_local_function_declaration 1 0 0]),
     (1567, 1, True, [REDUCE sym_local_function_declaration 1 0 0]),
     (1569, 1, False, [REDUCE sym_assert_statement 2 0 0]),
     (1571, 1, True, [REDUCE sym_assert_statement 2 0 0]),
     (1573, 1, False, [REDUCE sym_return_statement 2 0 0]),
     (1575, 1, True, [REDUCE sym_return_statement 2 0 0]),
     (1577, 1, False, [REDUCE sym_for_statement 4 0 51]),
     (1579, 1, True, [REDUCE sym_for_statement 4 0 51]),
     (1581, 1, False, [REDUCE sym_lambda_expression 2 0 21]),
     (1583, 1, True, [REDUCE sym_lambda_expression 2 0 21]),
     (1585, 1, False, [REDUCE sym_for_statement 3 0 35]),
     (1587, 1, True, [REDUCE sym_for_statement 3 0 35]),
     (1589, 1, False, [REDUCE sym_switch_block 2 0 0]),
     (1591, 1, True, [REDUCE sym_switch_block 2 0 0]),
     (1593, 1, False, [REDUCE sym_break_statement 3 0 0]),
     (1595, 1, True, [REDUCE sym_break_statement 3 0 0]),
     (1597, 1, False, [REDUCE sym__statement 1 2 0]),
     (1599, 1, True, [REDUCE sym__statement 1 2 0]),
     (1601, 1, False, [REDUCE sym_switch_block 4 0 0]),
     (1603, 1, True, [REDUCE sym_switch_block 4 0 0]),
     (1605, 1, False, [REDUCE sym_continue_statement 2 0 0]),
     (1607, 1, True, [REDUCE sym_continue_statement 2 0 0]),
     (1609, 1, False, [REDUCE sym_if_statement 7 0 85]),
     (1611, 1, True, [REDUCE sym_if_statement 7 0 85]),
     (1613, 1, False, [REDUCE sym_local_function_declaration 2 0 0]),
     (1615, 1, True, [REDUCE sym_local_function_declaration 2 0 0]),
     (1617, 1, False, [REDUCE sym_if_statement 5 0 62]),
     (1619, 1, True, [REDUCE sym_if_statement 5 0 62]), (1621, 1, False, [SHIFT 42]),
     (1623, 1, False, [REDUCE sym_yield_each_statement 4 0 0]),
     (1625, 1, True, [REDUCE sym_yield_each_statement 4 0 0]), (1627, 1, False, [SHIFT 1893]),
     (1629, 1, False, [SHIFT 3543]), (1631, 1, False, [SHIFT 2637]),
     (1633, 1, False, [SHIFT 3044]), (1635, 1, True, [SHIFT 1808]),
     (1637, 1, False, [SHIFT 1971]), (1639, 1, False, [REDUCE sym_do_statement 5 0 61]),
     (1641, 1, True, [REDUCE sym_do_statement 5 0 61]),
     (1643, 1, True, [REDUCE sym_unconditional_assignable_selector 1 0 0])]"

definition ts_parse_actions_6 :: "action_group list" where
  "ts_parse_actions_6 = [
     (1645, 1, False, [REDUCE sym_unconditional_assignable_selector 1 0 0]),
     (1647, 2, True, [REDUCE sym_equality_expression 3 0 0, SHIFT 337]),
     (1650, 1, False, [REDUCE aux_sym_block_repeat1 1 0 0]),
     (1652, 1, True, [REDUCE aux_sym_block_repeat1 1 0 0]),
     (1654, 2, True, [REDUCE sym__cascade_subsection 1 0 0, SHIFT 163]),
     (1657, 1, True, [REDUCE sym_conditional_assignable_selector 2 0 0]),
     (1659, 1, False, [REDUCE sym_conditional_assignable_selector 2 0 0]),
     (1661, 1, True, [REDUCE sym_unconditional_assignable_selector 2 0 0]),
     (1663, 1, False, [REDUCE sym_unconditional_assignable_selector 2 0 0]),
     (1665, 2, True, [REDUCE aux_sym_cascade_section_repeat1 2 0 0, SHIFT_REPEAT 163]),
     (1668, 1, True, [REDUCE sym__assignable_selector 1 0 0]),
     (1670, 1, False, [REDUCE sym__assignable_selector 1 0 0]),
     (1672, 1, True, [REDUCE sym__primary 2 0 0]),
     (1674, 1, False, [REDUCE sym_assignable_expression 2 0 0]),
     (1676, 1, True, [REDUCE sym_assignable_expression 2 0 0]),
     (1678, 1, False, [REDUCE sym__primary 2 0 0]), (1680, 1, True, [REDUCE sym_selector 1 0 0]),
     (1682, 1, False, [REDUCE sym__assignable_selector_part 1 0 0]),
     (1684, 1, True, [REDUCE sym__assignable_selector_part 1 0 0]),
     (1686, 1, False, [REDUCE sym_selector 1 0 0]),
     (1688, 1, False, [REDUCE sym_parenthesized_expression 3 0 0]),
     (1690, 1, True, [REDUCE sym_parenthesized_expression 3 0 0]),
     (1692, 2, True, [REDUCE sym__cascade_subsection 2 0 0, SHIFT 163]),
     (1695, 1, True, [REDUCE sym_index_selector 3 0 0]),
     (1697, 1, False, [REDUCE sym_index_selector 3 0 0]),
     (1699, 1, False, [REDUCE sym__assignable_selector_part 2 0 0]),
     (1701, 1, True, [REDUCE sym__assignable_selector_part 2 0 0]),
     (1703, 1, False, [SHIFT 2038]), (1705, 1, True, [SHIFT 1792]),
     (1707, 1, False, [SHIFT 3531]), (1709, 1, False, [SHIFT 1911]),
     (1711, 1, False, [SHIFT 2149]), (1713, 1, False, [SHIFT 2618]),
     (1715, 1, True, [REDUCE aux_sym_cascade_section_repeat1 1 0 0]),
     (1717, 1, False, [REDUCE aux_sym_cascade_section_repeat1 1 0 0]),
     (1719, 1, True, [REDUCE aux_sym_cascade_section_repeat2 1 0 0]),
     (1721, 1, False, [REDUCE aux_sym_cascade_section_repeat2 1 0 0]),
     (1723, 1, True, [REDUCE sym_cascade_selector 2 0 0]),
     (1725, 1, False, [REDUCE sym_cascade_selector 2 0 0]),
     (1727, 1, True, [REDUCE sym_argument_part 1 0 0]),
     (1729, 1, False, [REDUCE sym_argument_part 1 0 0]),
     (1731, 1, True, [REDUCE sym_argument_part 2 0 0]),
     (1733, 1, False, [REDUCE sym_argument_part 2 0 0]), (1735, 1, True, [SHIFT 1785]),
     (1737, 1, True, [REDUCE sym_cascade_selector 1 0 0]),
     (1739, 1, False, [REDUCE sym_cascade_selector 1 0 0]), (1741, 1, True, [SHIFT 1780]),
     (1743, 2, False, [REDUCE aux_sym_extension_body_repeat1 2 0 0, SHIFT_REPEAT 2038]),
     (1746, 1, True, [REDUCE aux_sym_extension_body_repeat1 2 0 0]),
     (1748, 2, True, [REDUCE aux_sym_extension_body_repeat1 2 0 0, SHIFT_REPEAT 1833]),
     (1751, 2, True, [REDUCE aux_sym_extension_body_repeat1 2 0 0, SHIFT_REPEAT 3007]),
     (1754, 2, False, [REDUCE aux_sym_extension_body_repeat1 2 0 0, SHIFT_REPEAT 2258]),
     (1757, 2, False, [REDUCE aux_sym_extension_body_repeat1 2 0 0, SHIFT_REPEAT 1896]),
     (1760, 2, False, [REDUCE aux_sym_extension_body_repeat1 2 0 0, SHIFT_REPEAT 2190]),
     (1763, 2, False, [REDUCE aux_sym_extension_body_repeat1 2 0 0, SHIFT_REPEAT 2270]),
     (1766, 2, False, [REDUCE aux_sym_extension_body_repeat1 2 0 0, SHIFT_REPEAT 3531]),
     (1769, 2, False, [REDUCE aux_sym_extension_body_repeat1 2 0 0, SHIFT_REPEAT 1625]),
     (1772, 2, False, [REDUCE aux_sym_extension_body_repeat1 2 0 0, SHIFT_REPEAT 2834]),
     (1775, 2, False, [REDUCE aux_sym_extension_body_repeat1 2 0 0, SHIFT_REPEAT 1911]),
     (1778, 2, False, [REDUCE aux_sym_extension_body_repeat1 2 0 0, SHIFT_REPEAT 2783]),
     (1781, 2, False, [REDUCE aux_sym_extension_body_repeat1 2 0 0, SHIFT_REPEAT 2149]),
     (1784, 2, False, [REDUCE aux_sym_extension_body_repeat1 2 0 0, SHIFT_REPEAT 2618]),
     (1787, 2, False, [REDUCE aux_sym_extension_body_repeat1 2 0 0, SHIFT_REPEAT 2481]),
     (1790, 2, False, [REDUCE aux_sym_extension_body_repeat1 2 0 0, SHIFT_REPEAT 2159]),
     (1793, 2, False, [REDUCE aux_sym_string_literal_repeat1 2 0 0, SHIFT_REPEAT 2256]),
     (1796, 2, False, [REDUCE aux_sym_string_literal_repeat1 2 0 0, SHIFT_REPEAT 2255]),
     (1799, 2, True, [REDUCE aux_sym_string_literal_repeat1 2 0 0, SHIFT_REPEAT 2153]),
     (1802, 2, True, [REDUCE aux_sym_string_literal_repeat1 2 0 0, SHIFT_REPEAT 2157]),
     (1805, 2, False, [REDUCE aux_sym_string_literal_repeat1 2 0 0, SHIFT_REPEAT 2324]),
     (1808, 2, False, [REDUCE aux_sym_string_literal_repeat1 2 0 0, SHIFT_REPEAT 2328]),
     (1811, 2, True, [REDUCE aux_sym_string_literal_repeat1 2 0 0, SHIFT_REPEAT 2244]),
     (1814, 2, True, [REDUCE aux_sym_string_literal_repeat1 2 0 0, SHIFT_REPEAT 2243]),
     (1817, 1, True, [SHIFT 1782]), (1819, 1, True, [REDUCE sym_arguments 2 0 0]),
     (1821, 1, False, [REDUCE sym_arguments 2 0 0]), (1823, 1, True, [SHIFT 1789]),
     (1825, 2, False, [REDUCE aux_sym_enum_body_repeat2 2 0 0, SHIFT_REPEAT 2038]),
     (1828, 1, True, [REDUCE aux_sym_enum_body_repeat2 2 0 0]),
     (1830, 2, True, [REDUCE aux_sym_enum_body_repeat2 2 0 0, SHIFT_REPEAT 1833]),
     (1833, 2, True, [REDUCE aux_sym_enum_body_repeat2 2 0 0, SHIFT_REPEAT 3007]),
     (1836, 2, False, [REDUCE aux_sym_enum_body_repeat2 2 0 0, SHIFT_REPEAT 2258]),
     (1839, 2, False, [REDUCE aux_sym_enum_body_repeat2 2 0 0, SHIFT_REPEAT 1896]),
     (1842, 2, False, [REDUCE aux_sym_enum_body_repeat2 2 0 0, SHIFT_REPEAT 2190]),
     (1845, 2, False, [REDUCE aux_sym_enum_body_repeat2 2 0 0, SHIFT_REPEAT 2270]),
     (1848, 2, False, [REDUCE aux_sym_enum_body_repeat2 2 0 0, SHIFT_REPEAT 3531]),
     (1851, 2, False, [REDUCE aux_sym_enum_body_repeat2 2 0 0, SHIFT_REPEAT 1625]),
     (1854, 2, False, [REDUCE aux_sym_enum_body_repeat2 2 0 0, SHIFT_REPEAT 2834]),
     (1857, 2, False, [REDUCE aux_sym_enum_body_repeat2 2 0 0, SHIFT_REPEAT 1911]),
     (1860, 2, False, [REDUCE aux_sym_enum_body_repeat2 2 0 0, SHIFT_REPEAT 2783]),
     (1863, 2, False, [REDUCE aux_sym_enum_body_repeat2 2 0 0, SHIFT_REPEAT 2149]),
     (1866, 2, False, [REDUCE aux_sym_enum_body_repeat2 2 0 0, SHIFT_REPEAT 2618]),
     (1869, 2, False, [REDUCE aux_sym_enum_body_repeat2 2 0 0, SHIFT_REPEAT 2481]),
     (1872, 2, False, [REDUCE aux_sym_enum_body_repeat2 2 0 0, SHIFT_REPEAT 2159]),
     (1875, 1, True, [SHIFT 1730]), (1877, 1, True, [SHIFT 1779]),
     (1879, 1, True, [REDUCE sym_arguments 3 0 0]),
     (1881, 1, False, [REDUCE sym_arguments 3 0 0]), (1883, 1, True, [SHIFT 1783]),
     (1885, 1, False, [REDUCE sym_for_loop_parts 3 0 53]),
     (1887, 1, True, [REDUCE sym_for_loop_parts 3 0 53]),
     (1889, 1, False, [REDUCE sym__string_literal_double_quotes_multiple 2 0 0]),
     (1891, 1, True, [REDUCE sym__string_literal_double_quotes_multiple 2 0 0]),
     (1893, 2, False, [REDUCE aux_sym_string_literal_repeat1 2 0 0, SHIFT_REPEAT 2253]),
     (1896, 2, False, [REDUCE aux_sym_string_literal_repeat1 2 0 0, SHIFT_REPEAT 2251]),
     (1899, 2, True, [REDUCE aux_sym_string_literal_repeat1 2 0 0, SHIFT_REPEAT 2154]),
     (1902, 2, True, [REDUCE aux_sym_string_literal_repeat1 2 0 0, SHIFT_REPEAT 2162]),
     (1905, 2, False, [REDUCE aux_sym_string_literal_repeat1 2 0 0, SHIFT_REPEAT 2318]),
     (1908, 2, False, [REDUCE aux_sym_string_literal_repeat1 2 0 0, SHIFT_REPEAT 2319]),
     (1911, 2, True, [REDUCE aux_sym_string_literal_repeat1 2 0 0, SHIFT_REPEAT 2250]),
     (1914, 2, True, [REDUCE aux_sym_string_literal_repeat1 2 0 0, SHIFT_REPEAT 2249]),
     (1917, 1, False, [REDUCE sym__raw_string_literal_single_quotes_multiple 3 0 0]),
     (1919, 1, True, [REDUCE sym__raw_string_literal_single_quotes_multiple 3 0 0]),
     (1921, 1, False, [REDUCE sym__raw_string_literal_single_quotes_multiple 2 0 0]),
     (1923, 1, True, [REDUCE sym__raw_string_literal_single_quotes_multiple 2 0 0]),
     (1925, 1, False, [REDUCE sym__raw_string_literal_double_quotes_multiple 2 0 0]),
     (1927, 1, True, [REDUCE sym__raw_string_literal_double_quotes_multiple 2 0 0]),
     (1929, 1, False, [REDUCE sym__raw_string_literal_single_quotes 2 0 0]),
     (1931, 1, True, [REDUCE sym__raw_string_literal_single_quotes 2 0 0]),
     (1933, 2, True, [REDUCE sym_unconditional_assignable_selector 2 0 0, REDUCE sym_super_formal_parameter 3 0 0]),
     (1936, 2, True, [REDUCE sym_unconditional_assignable_selector 2 0 0, SHIFT 709]),
     (1939, 2, False, [REDUCE sym_unconditional_assignable_selector 2 0 0, REDUCE sym_super_formal_parameter 3 0 0]),
     (1942, 2, False, [REDUCE sym_unconditional_assignable_selector 2 0 0, SHIFT 2297]),
     (1945, 1, False, [REDUCE sym__raw_string_literal_double_quotes 2 0 0]),
     (1947, 1, True, [REDUCE sym__raw_string_literal_double_quotes 2 0 0]),
     (1949, 1, False, [REDUCE sym__string_literal_single_quotes_multiple 2 0 0]),
     (1951, 1, True, [REDUCE sym__string_literal_single_quotes_multiple 2 0 0]),
     (1953, 1, False, [REDUCE sym__string_literal_double_quotes 3 0 0]),
     (1955, 1, True, [REDUCE sym__string_literal_double_quotes 3 0 0]),
     (1957, 1, False, [REDUCE sym__string_literal_single_quotes 2 0 0]),
     (1959, 1, True, [REDUCE sym__string_literal_single_quotes 2 0 0]),
     (1961, 1, False, [REDUCE aux_sym_string_literal_repeat1 1 0 0]),
     (1963, 1, True, [REDUCE aux_sym_string_literal_repeat1 1 0 0]),
     (1965, 1, False, [REDUCE sym__string_literal_single_quotes 3 0 0]),
     (1967, 1, True, [REDUCE sym__string_literal_single_quotes 3 0 0]),
     (1969, 1, False, [REDUCE sym__string_literal_double_quotes_multiple 3 0 0]),
     (1971, 1, True, [REDUCE sym__string_literal_double_quotes_multiple 3 0 0]),
     (1973, 1, False, [REDUCE sym__string_literal_single_quotes_multiple 3 0 0]),
     (1975, 1, True, [REDUCE sym__string_literal_single_quotes_multiple 3 0 0]),
     (1977, 1, False, [REDUCE sym__string_literal_double_quotes 2 0 0]),
     (1979, 1, True, [REDUCE sym__string_literal_double_quotes 2 0 0]),
     (1981, 1, False, [REDUCE sym__raw_string_literal_double_quotes 3 0 0]),
     (1983, 1, True, [REDUCE sym__raw_string_literal_double_quotes 3 0 0]),
     (1985, 1, False, [REDUCE sym__raw_string_literal_double_quotes_multiple 3 0 0]),
     (1987, 1, True, [REDUCE sym__raw_string_literal_double_quotes_multiple 3 0 0]),
     (1989, 1, False, [REDUCE sym__raw_string_literal_single_quotes 3 0 0]),
     (1991, 1, True, [REDUCE sym__raw_string_literal_single_quotes 3 0 0]),
     (1993, 3, True, [REDUCE sym__primary 1 0 0, REDUCE sym__type_name 1 0 1, SHIFT 3499]),
     (1997, 1, True, [REDUCE sym_postfix_expression 1 0 0]), (1999, 1, True, [SHIFT 202]),
     (2001, 1, True, [SHIFT 167])]"

definition ts_parse_actions_7 :: "action_group list" where
  "ts_parse_actions_7 = [
     (2003, 1, False, [SHIFT 3140]), (2005, 1, False, [SHIFT 2035]),
     (2007, 1, False, [REDUCE sym_postfix_expression 1 0 0]), (2009, 1, False, [SHIFT 967]),
     (2011, 1, False, [SHIFT 3279]), (2013, 1, False, [SHIFT 3426]),
     (2015, 1, True, [REDUCE sym__type_name 1 0 1]),
     (2017, 1, True, [REDUCE sym__postfix_expression 1 0 0]),
     (2019, 2, True, [REDUCE sym__postfix_expression 1 0 0, SHIFT 202]),
     (2022, 2, True, [REDUCE sym__postfix_expression 1 0 0, SHIFT 167]),
     (2025, 2, False, [REDUCE sym__postfix_expression 1 0 0, SHIFT 3140]),
     (2028, 2, False, [REDUCE sym__postfix_expression 1 0 0, SHIFT 2035]),
     (2031, 1, False, [REDUCE sym__postfix_expression 1 0 0]),
     (2033, 2, False, [REDUCE sym__postfix_expression 1 0 0, SHIFT 967]),
     (2036, 2, False, [REDUCE sym__postfix_expression 1 0 0, SHIFT 3279]),
     (2039, 2, False, [REDUCE sym__postfix_expression 1 0 0, SHIFT 3426]),
     (2042, 1, True, [SHIFT 244]), (2044, 1, False, [SHIFT 3077]),
     (2046, 1, False, [SHIFT 3501]), (2048, 1, False, [SHIFT 3500]),
     (2050, 1, False, [SHIFT 219]),
     (2052, 2, True, [REDUCE sym__postfix_expression 1 0 0, SHIFT 244]),
     (2055, 2, False, [REDUCE sym__postfix_expression 1 0 0, SHIFT 3077]),
     (2058, 2, False, [REDUCE sym__postfix_expression 1 0 0, SHIFT 3501]),
     (2061, 2, False, [REDUCE sym__postfix_expression 1 0 0, SHIFT 3500]),
     (2064, 1, True, [SHIFT 311]), (2066, 1, False, [SHIFT 279]), (2068, 1, True, [SHIFT 313]),
     (2070, 1, False, [SHIFT 315]), (2072, 1, True, [SHIFT 316]), (2074, 1, False, [SHIFT 318]),
     (2076, 1, True, [SHIFT 2450]),
     (2078, 1, True, [REDUCE aux_sym__assignable_selector_part_repeat1 2 0 0]),
     (2080, 2, True, [REDUCE aux_sym__assignable_selector_part_repeat1 2 0 0, SHIFT_REPEAT 255]),
     (2083, 2, True, [REDUCE aux_sym__assignable_selector_part_repeat1 2 0 0, SHIFT_REPEAT 167]),
     (2086, 2, False, [REDUCE aux_sym__assignable_selector_part_repeat1 2 0 0, SHIFT_REPEAT 3158]),
     (2089, 2, False, [REDUCE aux_sym__assignable_selector_part_repeat1 2 0 0, SHIFT_REPEAT 2035]),
     (2092, 1, False, [REDUCE aux_sym__assignable_selector_part_repeat1 2 0 0]),
     (2094, 2, False, [REDUCE aux_sym__assignable_selector_part_repeat1 2 0 0, SHIFT_REPEAT 967]),
     (2097, 2, False, [REDUCE aux_sym__assignable_selector_part_repeat1 2 0 0, SHIFT_REPEAT 3273]),
     (2100, 2, False, [REDUCE aux_sym__assignable_selector_part_repeat1 2 0 0, SHIFT_REPEAT 3431]),
     (2103, 1, True, [REDUCE sym__postfix_expression 2 0 0]),
     (2105, 2, True, [REDUCE sym__postfix_expression 2 0 0, SHIFT 244]),
     (2108, 2, True, [REDUCE sym__postfix_expression 2 0 0, SHIFT 167]),
     (2111, 2, False, [REDUCE sym__postfix_expression 2 0 0, SHIFT 3077]),
     (2114, 2, False, [REDUCE sym__postfix_expression 2 0 0, SHIFT 2035]),
     (2117, 1, False, [REDUCE sym__postfix_expression 2 0 0]),
     (2119, 2, False, [REDUCE sym__postfix_expression 2 0 0, SHIFT 967]),
     (2122, 2, False, [REDUCE sym__postfix_expression 2 0 0, SHIFT 3501]),
     (2125, 2, False, [REDUCE sym__postfix_expression 2 0 0, SHIFT 3500]),
     (2128, 1, True, [REDUCE sym_postfix_expression 2 0 0]),
     (2130, 1, False, [REDUCE sym_postfix_expression 2 0 0]),
     (2132, 2, True, [REDUCE sym__postfix_expression 2 0 0, SHIFT 202]),
     (2135, 2, False, [REDUCE sym__postfix_expression 2 0 0, SHIFT 3140]),
     (2138, 2, False, [REDUCE sym__postfix_expression 2 0 0, SHIFT 3279]),
     (2141, 2, False, [REDUCE sym__postfix_expression 2 0 0, SHIFT 3426]),
     (2144, 2, False, [REDUCE sym_relational_operator 1 0 0, SHIFT 2164]),
     (2147, 1, True, [REDUCE sym_relational_operator 1 0 0]),
     (2149, 1, False, [REDUCE sym_relational_operator 1 0 0]),
     (2151, 2, True, [REDUCE sym_relational_operator 1 0 0, SHIFT 1833]),
     (2154, 1, True, [SHIFT 1566]), (2156, 1, True, [SHIFT 1642]), (2158, 1, True, [SHIFT 216]),
     (2160, 1, True, [SHIFT 161]),
     (2162, 2, False, [REDUCE sym__postfix_expression 1 0 0, SHIFT 3181]),
     (2165, 2, False, [REDUCE sym__postfix_expression 1 0 0, SHIFT 2053]),
     (2168, 1, False, [SHIFT 1180]), (2170, 1, False, [SHIFT 3391]),
     (2172, 1, False, [SHIFT 3392]),
     (2174, 2, True, [REDUCE sym__postfix_expression 1 0 0, SHIFT 212]),
     (2177, 2, True, [REDUCE sym__postfix_expression 1 0 0, SHIFT 161]),
     (2180, 2, False, [REDUCE sym__postfix_expression 1 0 0, SHIFT 3175]),
     (2183, 2, False, [REDUCE sym__postfix_expression 1 0 0, SHIFT 1180]),
     (2186, 2, False, [REDUCE sym__postfix_expression 1 0 0, SHIFT 3401]),
     (2189, 2, False, [REDUCE sym__postfix_expression 1 0 0, SHIFT 3402]),
     (2192, 1, False, [SHIFT 3181]), (2194, 1, False, [SHIFT 2053]),
     (2196, 1, True, [REDUCE sym_field_initializer 5 0 0]), (2198, 1, True, [SHIFT 325]),
     (2200, 1, False, [SHIFT 278]), (2202, 1, True, [SHIFT 323]), (2204, 1, False, [SHIFT 312]),
     (2206, 1, True, [SHIFT 326]), (2208, 1, False, [SHIFT 357]), (2210, 1, True, [SHIFT 2479]),
     (2212, 1, False, [REDUCE sym_field_initializer 5 0 0]), (2214, 1, True, [SHIFT 212]),
     (2216, 1, False, [SHIFT 3175]), (2218, 1, False, [SHIFT 3401]),
     (2220, 1, False, [SHIFT 3402]),
     (2222, 2, True, [REDUCE sym__postfix_expression 1 0 0, SHIFT 216]),
     (2225, 2, False, [REDUCE sym__postfix_expression 1 0 0, SHIFT 3391]),
     (2228, 2, False, [REDUCE sym__postfix_expression 1 0 0, SHIFT 3392]),
     (2231, 1, True, [REDUCE sym_field_initializer 3 0 0]),
     (2233, 1, False, [REDUCE sym_field_initializer 3 0 0]),
     (2235, 2, True, [REDUCE sym_equality_expression 3 0 0, SHIFT 313]),
     (2238, 2, True, [REDUCE sym__postfix_expression 2 0 0, SHIFT 212]),
     (2241, 2, True, [REDUCE sym__postfix_expression 2 0 0, SHIFT 161]),
     (2244, 2, False, [REDUCE sym__postfix_expression 2 0 0, SHIFT 3175]),
     (2247, 2, False, [REDUCE sym__postfix_expression 2 0 0, SHIFT 2053]),
     (2250, 2, False, [REDUCE sym__postfix_expression 2 0 0, SHIFT 1180]),
     (2253, 2, False, [REDUCE sym__postfix_expression 2 0 0, SHIFT 3401]),
     (2256, 2, False, [REDUCE sym__postfix_expression 2 0 0, SHIFT 3402]),
     (2259, 2, False, [REDUCE sym__postfix_expression 2 0 0, SHIFT 3181]),
     (2262, 1, False, [SHIFT 1904]), (2264, 1, True, [SHIFT 783]), (2266, 1, True, [SHIFT 890]),
     (2268, 1, False, [SHIFT 1984]),
     (2270, 2, True, [REDUCE aux_sym__assignable_selector_part_repeat1 2 0 0, SHIFT_REPEAT 215]),
     (2273, 2, True, [REDUCE aux_sym__assignable_selector_part_repeat1 2 0 0, SHIFT_REPEAT 161]),
     (2276, 2, False, [REDUCE aux_sym__assignable_selector_part_repeat1 2 0 0, SHIFT_REPEAT 3179]),
     (2279, 2, False, [REDUCE aux_sym__assignable_selector_part_repeat1 2 0 0, SHIFT_REPEAT 2053]),
     (2282, 2, False, [REDUCE aux_sym__assignable_selector_part_repeat1 2 0 0, SHIFT_REPEAT 1180]),
     (2285, 2, False, [REDUCE aux_sym__assignable_selector_part_repeat1 2 0 0, SHIFT_REPEAT 3396]),
     (2288, 2, False, [REDUCE aux_sym__assignable_selector_part_repeat1 2 0 0, SHIFT_REPEAT 3397]),
     (2291, 2, True, [REDUCE sym__postfix_expression 2 0 0, SHIFT 216]),
     (2294, 2, False, [REDUCE sym__postfix_expression 2 0 0, SHIFT 3391]),
     (2297, 2, False, [REDUCE sym__postfix_expression 2 0 0, SHIFT 3392]),
     (2300, 1, True, [SHIFT 227]), (2302, 1, True, [SHIFT 169]),
     (2304, 2, False, [REDUCE sym__postfix_expression 1 0 0, SHIFT 3246]),
     (2307, 2, False, [REDUCE sym__postfix_expression 1 0 0, SHIFT 2019]),
     (2310, 1, False, [SHIFT 1285]), (2312, 1, True, [SHIFT 3304]),
     (2314, 1, True, [SHIFT 3305]), (2316, 1, False, [SHIFT 3246]),
     (2318, 1, False, [SHIFT 2019]), (2320, 1, True, [SHIFT 229]),
     (2322, 2, False, [REDUCE sym__postfix_expression 1 0 0, SHIFT 3201]),
     (2325, 1, True, [SHIFT 3376]), (2327, 1, True, [SHIFT 3374]),
     (2329, 2, True, [REDUCE sym_equality_expression 3 0 0, SHIFT 323]),
     (2332, 1, True, [SHIFT 340]), (2334, 1, False, [SHIFT 283]), (2336, 1, True, [SHIFT 331]),
     (2338, 1, False, [SHIFT 358]), (2340, 1, True, [SHIFT 360]), (2342, 1, False, [SHIFT 359]),
     (2344, 1, True, [SHIFT 2486]), (2346, 1, False, [SHIFT 3201]),
     (2348, 2, False, [REDUCE sym__postfix_expression 2 0 0, SHIFT 3201]),
     (2351, 2, False, [REDUCE sym__postfix_expression 2 0 0, SHIFT 2019]),
     (2354, 2, True, [REDUCE aux_sym__assignable_selector_part_repeat1 2 0 0, SHIFT_REPEAT 226]),
     (2357, 2, True, [REDUCE aux_sym__assignable_selector_part_repeat1 2 0 0, SHIFT_REPEAT 169]),
     (2360, 2, False, [REDUCE aux_sym__assignable_selector_part_repeat1 2 0 0, SHIFT_REPEAT 3206]),
     (2363, 2, False, [REDUCE aux_sym__assignable_selector_part_repeat1 2 0 0, SHIFT_REPEAT 2019]),
     (2366, 2, False, [REDUCE aux_sym__assignable_selector_part_repeat1 2 0 0, SHIFT_REPEAT 1285]),
     (2369, 2, True, [REDUCE aux_sym__assignable_selector_part_repeat1 2 0 0, SHIFT_REPEAT 3366]),
     (2372, 2, True, [REDUCE aux_sym__assignable_selector_part_repeat1 2 0 0, SHIFT_REPEAT 3367]),
     (2375, 2, False, [REDUCE sym__postfix_expression 2 0 0, SHIFT 3246])]"

definition ts_parse_actions_8 :: "action_group list" where
  "ts_parse_actions_8 = [
     (2378, 1, True, [SHIFT 3555]),
     (2380, 2, True, [REDUCE sym__type_not_void_not_function 1 0 0, REDUCE sym__function_type_tail 1 0 0]),
     (2383, 3, True, [REDUCE sym__type_not_void_not_function 1 0 0, REDUCE sym__function_type_tail 1 0 0, SHIFT 1714]),
     (2387, 3, False, [REDUCE sym__type_not_void_not_function 1 0 0, REDUCE sym__function_type_tail 1 0 0, SHIFT 844]),
     (2391, 3, False, [REDUCE sym__type_not_void_not_function 1 0 0, REDUCE sym__function_type_tail 1 0 0, SHIFT 2272]),
     (2395, 2, False, [REDUCE sym__type_not_void_not_function 1 0 0, REDUCE sym__function_type_tail 1 0 0]),
     (2398, 1, True, [SHIFT 338]), (2400, 1, False, [SHIFT 294]), (2402, 1, True, [SHIFT 344]),
     (2404, 1, False, [SHIFT 346]), (2406, 1, True, [SHIFT 347]), (2408, 1, False, [SHIFT 348]),
     (2410, 2, True, [REDUCE sym_equality_expression 3 0 0, SHIFT 331]),
     (2413, 1, True, [REDUCE sym_function_type 1 0 0]),
     (2415, 1, False, [REDUCE sym_function_type 1 0 0]), (2417, 1, True, [SHIFT 863]),
     (2419, 1, True, [SHIFT 232]), (2421, 1, True, [SHIFT 168]), (2423, 1, False, [SHIFT 3215]),
     (2425, 1, False, [SHIFT 2030]), (2427, 1, False, [SHIFT 3343]),
     (2429, 1, False, [SHIFT 3344]), (2431, 1, True, [REDUCE sym__relational_pattern 2 0 0]),
     (2433, 1, True, [SHIFT 3559]), (2435, 1, True, [REDUCE sym_function_type 2 0 0]),
     (2437, 1, False, [REDUCE sym_function_type 2 0 0]),
     (2439, 2, True, [REDUCE sym_equality_expression 3 0 0, SHIFT 344]),
     (2442, 1, True, [REDUCE aux_sym__function_type_tails 2 0 0]),
     (2444, 1, False, [REDUCE aux_sym__function_type_tails 2 0 0]),
     (2446, 2, True, [REDUCE aux_sym__function_type_tails 2 0 0, SHIFT_REPEAT 863]),
     (2449, 1, True, [REDUCE sym__function_type_tail 1 0 0]),
     (2451, 2, True, [REDUCE sym__function_type_tail 1 0 0, SHIFT 1714]),
     (2454, 2, False, [REDUCE sym__function_type_tail 1 0 0, SHIFT 844]),
     (2457, 2, False, [REDUCE sym__function_type_tail 1 0 0, SHIFT 2272]),
     (2460, 1, False, [REDUCE sym__function_type_tail 1 0 0]),
     (2462, 2, True, [REDUCE aux_sym_shift_expression_repeat1 2 0 0, SHIFT_REPEAT 1402]),
     (2465, 2, False, [REDUCE aux_sym_shift_expression_repeat1 2 0 0, SHIFT_REPEAT 1402]),
     (2468, 2, False, [REDUCE sym_relational_operator 1 0 0, SHIFT 1614]),
     (2471, 1, True, [REDUCE sym__real_expression 1 0 0]),
     (2473, 1, False, [REDUCE sym__real_expression 1 0 0]), (2475, 1, True, [SHIFT 1415]),
     (2477, 1, False, [SHIFT 1415]), (2479, 1, True, [REDUCE sym__function_type_tail 3 0 0]),
     (2481, 2, True, [REDUCE sym__function_type_tail 3 0 0, SHIFT 1714]),
     (2484, 2, False, [REDUCE sym__function_type_tail 3 0 0, SHIFT 844]),
     (2487, 1, False, [REDUCE sym__function_type_tail 3 0 0]),
     (2489, 1, True, [REDUCE sym_multiplicative_expression 2 0 0]),
     (2491, 1, False, [REDUCE sym_multiplicative_expression 2 0 0]),
     (2493, 1, True, [REDUCE sym_shift_expression 2 0 0]),
     (2495, 1, False, [REDUCE sym_shift_expression 2 0 0]),
     (2497, 1, True, [REDUCE aux_sym_multiplicative_expression_repeat1 2 0 0]),
     (2499, 1, False, [REDUCE aux_sym_multiplicative_expression_repeat1 2 0 0]),
     (2501, 2, True, [REDUCE aux_sym_multiplicative_expression_repeat1 2 0 0, SHIFT_REPEAT 1415]),
     (2504, 2, False, [REDUCE aux_sym_multiplicative_expression_repeat1 2 0 0, SHIFT_REPEAT 1415]),
     (2507, 1, True, [REDUCE sym__function_type_tail 2 0 0]),
     (2509, 2, True, [REDUCE sym__function_type_tail 2 0 0, SHIFT 1714]),
     (2512, 2, False, [REDUCE sym__function_type_tail 2 0 0, SHIFT 844]),
     (2515, 1, False, [REDUCE sym__function_type_tail 2 0 0]),
     (2517, 2, True, [REDUCE sym__type_not_void_not_function 2 0 0, REDUCE sym__function_type_tail 2 0 0]),
     (2520, 3, True, [REDUCE sym__type_not_void_not_function 2 0 0, REDUCE sym__function_type_tail 2 0 0, SHIFT 1714]),
     (2524, 3, False, [REDUCE sym__type_not_void_not_function 2 0 0, REDUCE sym__function_type_tail 2 0 0, SHIFT 844]),
     (2528, 2, False, [REDUCE sym__type_not_void_not_function 2 0 0, REDUCE sym__function_type_tail 2 0 0]),
     (2531, 1, True, [REDUCE sym__type_not_void_not_function 1 0 0]),
     (2533, 2, False, [REDUCE sym__type_not_void_not_function 1 0 0, SHIFT 844]),
     (2536, 2, False, [REDUCE sym__type_not_void_not_function 1 0 0, SHIFT 2035]),
     (2539, 1, False, [REDUCE sym__type_not_void_not_function 1 0 0]),
     (2541, 1, True, [REDUCE sym__type_not_void 1 0 0]),
     (2543, 2, False, [REDUCE sym__type_not_void 1 0 0, SHIFT 844]),
     (2546, 1, False, [REDUCE sym__type_not_void 1 0 0]),
     (2548, 1, True, [REDUCE sym__type_not_function 1 0 0]),
     (2550, 1, True, [REDUCE sym__type_not_void_not_function 2 0 0]),
     (2552, 2, False, [REDUCE sym__type_not_void_not_function 2 0 0, SHIFT 844]),
     (2555, 1, False, [REDUCE sym__type_not_void_not_function 2 0 0]),
     (2557, 1, True, [REDUCE sym__expression 2 0 0]),
     (2559, 1, False, [REDUCE sym__expression 2 0 0]),
     (2561, 2, True, [REDUCE sym__expression 2 0 0, SHIFT 2511]),
     (2564, 2, True, [REDUCE aux_sym_logical_or_expression_repeat1 2 0 0, SHIFT_REPEAT 1399]),
     (2567, 1, True, [REDUCE sym__function_type_tail 4 0 0]),
     (2569, 2, False, [REDUCE sym__function_type_tail 4 0 0, SHIFT 844]),
     (2572, 1, False, [REDUCE sym__function_type_tail 4 0 0]),
     (2574, 2, True, [REDUCE aux_sym_logical_and_expression_repeat1 2 0 0, SHIFT_REPEAT 1395]),
     (2577, 2, True, [REDUCE aux_sym_additive_expression_repeat1 2 0 0, SHIFT_REPEAT 1401]),
     (2580, 1, True, [SHIFT 3540]), (2582, 2, False, [REDUCE sym__type_name 1 0 1, SHIFT 3425]),
     (2585, 1, True, [REDUCE aux_sym__expression_repeat1 2 0 0]),
     (2587, 1, False, [REDUCE aux_sym__expression_repeat1 2 0 0]),
     (2589, 2, True, [REDUCE aux_sym__expression_repeat1 2 0 0, SHIFT_REPEAT 2511]),
     (2592, 1, True, [SHIFT 3556]), (2594, 1, True, [REDUCE sym_additive_expression 2 0 0]),
     (2596, 1, False, [REDUCE sym_additive_expression 2 0 0]),
     (2598, 1, True, [REDUCE sym_logical_or_expression 2 0 0]),
     (2600, 1, False, [REDUCE sym_logical_or_expression 2 0 0]),
     (2602, 1, True, [REDUCE sym_logical_and_expression 2 0 0]),
     (2604, 1, False, [REDUCE sym_logical_and_expression 2 0 0]),
     (2606, 1, True, [REDUCE sym_record_type 2 0 0]),
     (2608, 1, False, [REDUCE sym_record_type 2 0 0]),
     (2610, 1, True, [REDUCE sym_bitwise_or_expression 2 0 0]),
     (2612, 1, False, [REDUCE sym_bitwise_or_expression 2 0 0]),
     (2614, 1, True, [REDUCE sym_bitwise_xor_expression 2 0 0]),
     (2616, 1, False, [REDUCE sym_bitwise_xor_expression 2 0 0]),
     (2618, 1, True, [REDUCE sym_bitwise_and_expression 2 0 0]),
     (2620, 1, False, [REDUCE sym_bitwise_and_expression 2 0 0]),
     (2622, 1, True, [REDUCE sym__type_name 2 0 1]),
     (2624, 1, False, [REDUCE sym__type_name 2 0 1]),
     (2626, 3, True, [REDUCE sym__type_not_void_not_function 1 0 0, REDUCE sym__function_type_tail 1 0 0, SHIFT 1701]),
     (2630, 3, False, [REDUCE sym__type_not_void_not_function 1 0 0, REDUCE sym__function_type_tail 1 0 0, SHIFT 1061]),
     (2634, 3, False, [REDUCE sym__type_not_void_not_function 1 0 0, REDUCE sym__function_type_tail 1 0 0, SHIFT 2267]),
     (2638, 1, True, [REDUCE sym_nullable_type 1 0 0]),
     (2640, 1, False, [REDUCE sym_nullable_type 1 0 0]),
     (2642, 1, True, [REDUCE sym_parameter_type_list 4 0 0]),
     (2644, 1, False, [REDUCE sym_parameter_type_list 4 0 0]),
     (2646, 2, True, [REDUCE aux_sym__function_type_tails 2 0 0, SHIFT_REPEAT 1065]),
     (2649, 1, True, [REDUCE sym__function_type_tail 5 0 0]),
     (2651, 1, False, [REDUCE sym__function_type_tail 5 0 0]),
     (2653, 1, True, [REDUCE sym_record_type 6 0 0]),
     (2655, 1, False, [REDUCE sym_record_type 6 0 0]),
     (2657, 1, True, [REDUCE sym_set_or_map_literal 3 0 0]),
     (2659, 1, False, [REDUCE sym_map_pattern 3 0 0]),
     (2661, 1, False, [REDUCE sym_set_or_map_literal 3 0 0]),
     (2663, 2, True, [REDUCE sym__function_type_tail 1 0 0, SHIFT 1701]),
     (2666, 2, False, [REDUCE sym__function_type_tail 1 0 0, SHIFT 1061]),
     (2669, 2, False, [REDUCE sym__function_type_tail 1 0 0, SHIFT 2267]),
     (2672, 1, True, [REDUCE sym_list_literal 3 0 0]),
     (2674, 1, False, [REDUCE sym_list_pattern 3 0 0]),
     (2676, 1, False, [REDUCE sym_list_literal 3 0 0]),
     (2678, 1, True, [REDUCE sym_parameter_type_list 5 0 0]),
     (2680, 1, False, [REDUCE sym_parameter_type_list 5 0 0]),
     (2682, 1, True, [REDUCE sym_record_type 7 0 0]),
     (2684, 1, False, [REDUCE sym_record_type 7 0 0]),
     (2686, 1, True, [REDUCE sym_type_arguments 2 0 0]),
     (2688, 1, False, [REDUCE sym_type_arguments 2 0 0]),
     (2690, 1, True, [REDUCE sym_parameter_type_list 6 0 0]),
     (2692, 1, False, [REDUCE sym_parameter_type_list 6 0 0]),
     (2694, 1, True, [REDUCE sym_list_literal 2 0 0]),
     (2696, 1, False, [REDUCE sym_list_pattern 2 0 0]),
     (2698, 1, False, [REDUCE sym_list_literal 2 0 0]),
     (2700, 1, True, [REDUCE sym_record_type 8 0 0]),
     (2702, 1, False, [REDUCE sym_record_type 8 0 0]),
     (2704, 1, True, [REDUCE sym_constructor_tearoff 3 0 0]),
     (2706, 1, False, [REDUCE sym_constructor_tearoff 3 0 0]),
     (2708, 1, True, [REDUCE sym__function_builtin_identifier 1 0 0]),
     (2710, 1, False, [REDUCE sym__function_builtin_identifier 1 0 0]),
     (2712, 1, True, [REDUCE sym_record_type 9 0 0]),
     (2714, 1, False, [REDUCE sym_record_type 9 0 0]),
     (2716, 1, True, [REDUCE sym_type_arguments 3 0 0]),
     (2718, 1, False, [REDUCE sym_type_arguments 3 0 0]),
     (2720, 1, True, [REDUCE sym_record_type 10 0 0]),
     (2722, 1, False, [REDUCE sym_record_type 10 0 0]), (2724, 1, True, [SHIFT 1065]),
     (2726, 1, True, [REDUCE aux_sym__function_type_tails 1 0 0])]"

definition ts_parse_actions_9 :: "action_group list" where
  "ts_parse_actions_9 = [
     (2728, 1, False, [REDUCE aux_sym__function_type_tails 1 0 0]),
     (2730, 2, True, [REDUCE aux_sym_cascade_section_repeat1 2 0 0, SHIFT_REPEAT 168]),
     (2733, 1, True, [REDUCE sym_record_type 3 0 0]),
     (2735, 1, False, [REDUCE sym_record_type 3 0 0]),
     (2737, 1, True, [REDUCE sym_type_parameters 3 0 0]),
     (2739, 1, False, [REDUCE sym_type_parameters 3 0 0]),
     (2741, 1, True, [REDUCE sym_type_arguments 4 0 0]),
     (2743, 1, False, [REDUCE sym_type_arguments 4 0 0]),
     (2745, 1, True, [REDUCE sym_type_parameters 4 0 0]),
     (2747, 1, False, [REDUCE sym_type_parameters 4 0 0]),
     (2749, 1, True, [REDUCE sym_if_null_expression 2 0 20]),
     (2751, 1, False, [REDUCE sym_if_null_expression 2 0 20]),
     (2753, 2, False, [REDUCE aux_sym_bitwise_and_expression_repeat1 2 0 0, SHIFT_REPEAT 341]),
     (2756, 2, True, [REDUCE aux_sym_bitwise_xor_expression_repeat1 2 0 0, SHIFT_REPEAT 350]),
     (2759, 2, False, [REDUCE aux_sym_bitwise_or_expression_repeat1 2 0 0, SHIFT_REPEAT 373]),
     (2762, 1, True, [REDUCE sym__type_not_void 2 0 0]),
     (2764, 1, False, [REDUCE sym__type_not_void 2 0 0]),
     (2766, 1, True, [REDUCE sym__type_not_function 2 0 0]),
     (2768, 1, True, [REDUCE sym_record_type 5 0 0]),
     (2770, 1, False, [REDUCE sym_record_type 5 0 0]),
     (2772, 1, True, [REDUCE sym__type_dot_identifier 2 0 7]),
     (2774, 1, False, [REDUCE sym__type_dot_identifier 2 0 7]),
     (2776, 1, True, [REDUCE sym__type_not_void_not_function 3 0 0]),
     (2778, 1, False, [REDUCE sym__type_not_void_not_function 3 0 0]),
     (2780, 1, True, [REDUCE sym_parameter_type_list 2 0 0]),
     (2782, 1, False, [REDUCE sym_parameter_type_list 2 0 0]),
     (2784, 2, True, [REDUCE sym_assignable_expression 1 0 0, REDUCE sym__primary 1 0 0]),
     (2787, 2, False, [REDUCE sym_assignable_expression 1 0 0, REDUCE sym__primary 1 0 0]),
     (2790, 3, False, [REDUCE sym_assignable_expression 1 0 0, REDUCE sym__primary 1 0 0, REDUCE sym__type_name 1 0 1]),
     (2794, 4, False, [REDUCE sym_assignable_expression 1 0 0, REDUCE sym__primary 1 0 0, REDUCE sym__type_name 1 0 1, SHIFT 3499]),
     (2799, 1, True, [REDUCE sym_parameter_type_list 3 0 0]),
     (2801, 1, False, [REDUCE sym_parameter_type_list 3 0 0]),
     (2803, 1, True, [REDUCE sym_record_type 4 0 0]),
     (2805, 1, False, [REDUCE sym_record_type 4 0 0]),
     (2807, 1, True, [REDUCE aux_sym__if_null_expression 2 0 37]),
     (2809, 2, True, [REDUCE aux_sym__if_null_expression 2 0 37, SHIFT_REPEAT 371]),
     (2812, 1, False, [REDUCE aux_sym__if_null_expression 2 0 37]),
     (2814, 1, True, [REDUCE sym__bool_literal 1 0 0]),
     (2816, 1, False, [REDUCE sym__bool_literal 1 0 0]),
     (2818, 1, True, [REDUCE sym_symbol_literal 2 0 0]),
     (2820, 1, False, [REDUCE sym_symbol_literal 2 0 0]),
     (2822, 1, True, [REDUCE sym_list_literal 4 0 0]),
     (2824, 1, False, [REDUCE sym_list_literal 4 0 0]),
     (2826, 2, True, [REDUCE sym_selector 1 0 0, REDUCE sym__assignable_selector_part 2 0 0]),
     (2829, 2, False, [REDUCE sym_selector 1 0 0, REDUCE sym__assignable_selector_part 2 0 0]),
     (2832, 1, True, [REDUCE sym_new_expression 3 0 0]),
     (2834, 1, False, [REDUCE sym_new_expression 3 0 0]),
     (2836, 1, True, [REDUCE sym_type_test 2 0 0]),
     (2838, 1, False, [REDUCE sym_type_test 2 0 0]),
     (2840, 1, True, [REDUCE sym_type_cast 2 0 0]),
     (2842, 1, False, [REDUCE sym_type_cast 2 0 0]),
     (2844, 1, True, [REDUCE aux_sym__expression_repeat1 1 0 0]),
     (2846, 1, False, [REDUCE aux_sym__expression_repeat1 1 0 0]),
     (2848, 1, True, [REDUCE sym_set_or_map_literal 6 0 0]),
     (2850, 1, False, [REDUCE sym_set_or_map_literal 6 0 0]),
     (2852, 1, True, [REDUCE sym_list_literal 6 0 0]),
     (2854, 1, False, [REDUCE sym_list_literal 6 0 0]),
     (2856, 2, True, [REDUCE sym_assignable_expression 2 0 0, REDUCE sym__primary 2 0 0]),
     (2859, 2, False, [REDUCE sym_assignable_expression 2 0 0, REDUCE sym__primary 2 0 0]),
     (2862, 1, True, [REDUCE sym_function_expression_body 2 0 0]),
     (2864, 1, False, [REDUCE sym_function_expression_body 2 0 0]),
     (2866, 2, True, [REDUCE sym__assignable_selector_part 1 0 0, REDUCE sym_selector 1 0 0]),
     (2869, 2, False, [REDUCE sym__assignable_selector_part 1 0 0, REDUCE sym_selector 1 0 0]),
     (2872, 1, True, [REDUCE sym_record_literal 1 0 0]),
     (2874, 1, False, [REDUCE sym_record_literal 1 0 0]),
     (2876, 1, True, [REDUCE sym_set_or_map_literal 5 0 0]),
     (2878, 1, False, [REDUCE sym_set_or_map_literal 5 0 0]),
     (2880, 1, True, [REDUCE sym_new_expression 4 0 0]),
     (2882, 1, False, [REDUCE sym_new_expression 4 0 0]),
     (2884, 2, True, [REDUCE sym__function_type_tail 3 0 0, SHIFT 1701]),
     (2887, 2, False, [REDUCE sym__function_type_tail 3 0 0, SHIFT 1061]),
     (2890, 2, True, [REDUCE sym__function_type_tail 2 0 0, SHIFT 1701]),
     (2893, 2, False, [REDUCE sym__function_type_tail 2 0 0, SHIFT 1061]),
     (2896, 3, True, [REDUCE sym__type_not_void_not_function 2 0 0, REDUCE sym__function_type_tail 2 0 0, SHIFT 1701]),
     (2900, 3, False, [REDUCE sym__type_not_void_not_function 2 0 0, REDUCE sym__function_type_tail 2 0 0, SHIFT 1061]),
     (2904, 1, True, [REDUCE sym_switch_expression 6 0 73]),
     (2906, 1, False, [REDUCE sym_switch_expression 6 0 73]),
     (2908, 1, True, [REDUCE sym_throw_expression_without_cascade 2 0 0]),
     (2910, 1, False, [REDUCE sym_throw_expression_without_cascade 2 0 0]),
     (2912, 1, True, [REDUCE sym_list_literal 7 0 0]),
     (2914, 1, False, [REDUCE sym_list_literal 7 0 0]),
     (2916, 1, True, [REDUCE sym_cascade_section 5 0 0]),
     (2918, 1, False, [REDUCE sym_cascade_section 5 0 0]),
     (2920, 1, True, [REDUCE sym_pattern_assignment 3 0 0]),
     (2922, 1, False, [REDUCE sym_pattern_assignment 3 0 0]),
     (2924, 1, True, [REDUCE sym_postfix_operator 1 0 0]),
     (2926, 1, False, [REDUCE sym_postfix_operator 1 0 0]),
     (2928, 1, True, [REDUCE sym_function_expression_body 3 0 0]),
     (2930, 1, False, [REDUCE sym_function_expression_body 3 0 0]),
     (2932, 1, True, [REDUCE sym_super 1 0 0]), (2934, 1, False, [REDUCE sym_super 1 0 0]),
     (2936, 1, True, [REDUCE sym_constructor_invocation 5 0 0]),
     (2938, 1, False, [REDUCE sym_constructor_invocation 5 0 0]),
     (2940, 1, True, [REDUCE sym__record_literal_no_const 4 0 0]),
     (2942, 1, False, [REDUCE sym__record_literal_no_const 4 0 0]),
     (2944, 1, True, [REDUCE sym_conditional_expression 5 0 72]),
     (2946, 1, False, [REDUCE sym_conditional_expression 5 0 72]),
     (2948, 1, True, [REDUCE sym_assignment_expression_without_cascade 3 0 38]),
     (2950, 1, False, [REDUCE sym_assignment_expression_without_cascade 3 0 38]),
     (2952, 1, True, [REDUCE sym_assignment_expression 3 0 38]),
     (2954, 1, False, [REDUCE sym_assignment_expression 3 0 38]),
     (2956, 1, True, [REDUCE sym_this 1 0 0]), (2958, 1, False, [REDUCE sym_this 1 0 0]),
     (2960, 1, True, [REDUCE sym__new_builtin 1 0 0]),
     (2962, 1, False, [REDUCE sym__new_builtin 1 0 0]),
     (2964, 1, True, [REDUCE sym_constructor_tearoff 4 0 0]),
     (2966, 1, False, [REDUCE sym_constructor_tearoff 4 0 0]),
     (2968, 1, True, [REDUCE sym_constructor_invocation 4 0 0]),
     (2970, 1, False, [REDUCE sym_constructor_invocation 4 0 0]),
     (2972, 1, True, [REDUCE sym_type_cast_expression 2 0 0]),
     (2974, 1, False, [REDUCE sym_type_cast_expression 2 0 0]),
     (2976, 1, True, [REDUCE sym_type_test_expression 2 0 0]),
     (2978, 1, False, [REDUCE sym_type_test_expression 2 0 0]),
     (2980, 1, True, [REDUCE sym_set_or_map_literal 7 0 0]),
     (2982, 1, False, [REDUCE sym_set_or_map_literal 7 0 0]),
     (2984, 1, True, [REDUCE sym_list_literal 5 0 0]),
     (2986, 1, False, [REDUCE sym_list_literal 5 0 0]),
     (2988, 1, True, [REDUCE sym_const_object_expression 3 0 0]),
     (2990, 1, False, [REDUCE sym_const_object_expression 3 0 0]),
     (2992, 1, True, [REDUCE aux_sym__assignable_selector_part_repeat1 1 0 0]),
     (2994, 1, False, [REDUCE aux_sym__assignable_selector_part_repeat1 1 0 0]),
     (2996, 2, True, [REDUCE aux_sym_cascade_section_repeat2 2 0 0, SHIFT_REPEAT 232]),
     (2999, 2, False, [REDUCE aux_sym_cascade_section_repeat2 2 0 0, SHIFT_REPEAT 3215]),
     (3002, 2, False, [REDUCE aux_sym_cascade_section_repeat2 2 0 0, SHIFT_REPEAT 3343]),
     (3005, 2, False, [REDUCE aux_sym_cascade_section_repeat2 2 0 0, SHIFT_REPEAT 3344]),
     (3008, 1, True, [REDUCE sym_function_expression 2 0 21]),
     (3010, 1, False, [REDUCE sym_function_expression 2 0 21]),
     (3012, 1, True, [REDUCE sym__exclamation_operator 1 0 0]),
     (3014, 1, False, [REDUCE sym__exclamation_operator 1 0 0]),
     (3016, 1, True, [REDUCE sym_await_expression 2 0 0]),
     (3018, 1, False, [REDUCE sym_await_expression 2 0 0]),
     (3020, 1, True, [REDUCE sym_unary_expression 2 0 0]),
     (3022, 1, False, [REDUCE sym_unary_expression 2 0 0]),
     (3024, 1, True, [REDUCE sym_set_or_map_literal 4 0 0]),
     (3026, 1, False, [REDUCE sym_set_or_map_literal 4 0 0]),
     (3028, 1, True, [REDUCE sym_function_expression_body 1 0 0]),
     (3030, 1, False, [REDUCE sym_function_expression_body 1 0 0]),
     (3032, 1, True, [REDUCE sym__record_literal_no_const 5 0 0]),
     (3034, 1, False, [REDUCE sym__record_literal_no_const 5 0 0]),
     (3036, 2, False, [REDUCE sym__type_not_void_not_function 1 0 0, SHIFT 1061]),
     (3039, 2, False, [REDUCE sym__type_not_void_not_function 1 0 0, SHIFT 2053]),
     (3042, 1, True, [REDUCE sym_record_literal 2 0 0]),
     (3044, 1, False, [REDUCE sym_record_literal 2 0 0]),
     (3046, 1, True, [REDUCE sym__numeric_literal 1 0 0]),
     (3048, 1, False, [REDUCE sym__numeric_literal 1 0 0]),
     (3050, 1, True, [REDUCE sym_true 1 0 0]), (3052, 1, False, [REDUCE sym_true 1 0 0]),
     (3054, 1, True, [REDUCE sym_false 1 0 0]), (3056, 1, False, [REDUCE sym_false 1 0 0]),
     (3058, 1, True, [REDUCE sym_null_literal 1 0 0])]"

definition ts_parse_actions_10 :: "action_group list" where
  "ts_parse_actions_10 = [
     (3060, 1, False, [REDUCE sym_null_literal 1 0 0]),
     (3062, 1, True, [REDUCE sym_switch_expression 5 0 60]),
     (3064, 1, False, [REDUCE sym_switch_expression 5 0 60]),
     (3066, 1, True, [REDUCE sym__literal 1 0 0]), (3068, 1, False, [REDUCE sym__literal 1 0 0]),
     (3070, 1, True, [REDUCE sym__cascade_assignment_section 2 0 0]),
     (3072, 1, False, [REDUCE sym__cascade_assignment_section 2 0 0]),
     (3074, 1, True, [REDUCE sym_unary_expression 1 0 0]),
     (3076, 1, False, [REDUCE sym_unary_expression 1 0 0]),
     (3078, 1, True, [REDUCE sym__unary_expression 1 0 0]),
     (3080, 1, False, [REDUCE sym__unary_expression 1 0 0]),
     (3082, 1, True, [REDUCE sym_const_object_expression 4 0 0]),
     (3084, 1, False, [REDUCE sym_const_object_expression 4 0 0]),
     (3086, 1, True, [REDUCE sym_rethrow_expression 1 0 0]),
     (3088, 1, False, [REDUCE sym_rethrow_expression 1 0 0]),
     (3090, 1, True, [REDUCE sym_switch_expression 7 0 84]),
     (3092, 1, False, [REDUCE sym_switch_expression 7 0 84]),
     (3094, 1, True, [REDUCE sym_throw_expression 2 0 0]),
     (3096, 1, False, [REDUCE sym_throw_expression 2 0 0]),
     (3098, 2, False, [REDUCE sym__function_type_tail 4 0 0, SHIFT 1061]),
     (3101, 2, False, [REDUCE sym__type_name 1 0 1, SHIFT 3326]),
     (3104, 2, True, [REDUCE sym__expression 2 0 0, SHIFT 2501]),
     (3107, 2, False, [REDUCE sym__type_not_void_not_function 2 0 0, SHIFT 1061]),
     (3110, 2, False, [REDUCE sym__type_not_void 1 0 0, SHIFT 1061]),
     (3113, 2, True, [REDUCE aux_sym__expression_repeat1 2 0 0, SHIFT_REPEAT 2501]),
     (3116, 2, True, [REDUCE aux_sym_bitwise_xor_expression_repeat1 2 0 0, SHIFT_REPEAT 342]),
     (3119, 2, False, [REDUCE aux_sym_bitwise_or_expression_repeat1 2 0 0, SHIFT_REPEAT 364]),
     (3122, 2, True, [REDUCE aux_sym__if_null_expression 2 0 37, SHIFT_REPEAT 333]),
     (3125, 1, True, [REDUCE aux_sym_program_repeat1 2 0 0]),
     (3127, 1, False, [REDUCE aux_sym_program_repeat1 2 0 0]),
     (3129, 2, True, [REDUCE aux_sym_program_repeat1 2 0 0, SHIFT_REPEAT 3045]),
     (3132, 2, False, [REDUCE aux_sym_program_repeat1 2 0 0, SHIFT_REPEAT 2271]),
     (3135, 2, False, [REDUCE aux_sym_program_repeat1 2 0 0, SHIFT_REPEAT 2274]),
     (3138, 2, False, [REDUCE aux_sym_bitwise_and_expression_repeat1 2 0 0, SHIFT_REPEAT 314]),
     (3141, 1, False, [SHIFT 2000]),
     (3143, 2, True, [REDUCE sym_set_or_map_literal 2 0 0, REDUCE sym_map_pattern 2 0 0]),
     (3146, 2, False, [REDUCE sym_set_or_map_literal 2 0 0, REDUCE sym_map_pattern 2 0 0]),
     (3149, 2, True, [REDUCE sym__identifier_or_new 1 0 0, REDUCE sym_constructor_tearoff 3 0 0]),
     (3152, 2, False, [REDUCE sym__identifier_or_new 1 0 0, REDUCE sym_constructor_tearoff 3 0 0]),
     (3155, 1, False, [REDUCE sym_annotation 2 0 2]), (3157, 1, True, [SHIFT 162]),
     (3159, 1, True, [REDUCE sym_annotation 2 0 2]), (3161, 1, True, [SHIFT 2030]),
     (3163, 1, True, [SHIFT 3361]),
     (3165, 2, True, [REDUCE sym_set_or_map_literal 3 0 0, REDUCE sym_map_pattern 3 0 0]),
     (3168, 2, False, [REDUCE sym_set_or_map_literal 3 0 0, REDUCE sym_map_pattern 3 0 0]),
     (3171, 2, True, [REDUCE sym_list_literal 3 0 0, REDUCE sym_list_pattern 3 0 0]),
     (3174, 2, False, [REDUCE sym_list_literal 3 0 0, REDUCE sym_list_pattern 3 0 0]),
     (3177, 2, True, [REDUCE sym_list_literal 2 0 0, REDUCE sym_list_pattern 2 0 0]),
     (3180, 2, False, [REDUCE sym_list_literal 2 0 0, REDUCE sym_list_pattern 2 0 0]),
     (3183, 2, True, [REDUCE sym_set_or_map_literal 4 0 0, REDUCE sym_constant_pattern 4 0 0]),
     (3186, 2, False, [REDUCE sym_set_or_map_literal 4 0 0, REDUCE sym_constant_pattern 4 0 0]),
     (3189, 2, True, [REDUCE sym_list_literal 4 0 0, REDUCE sym_constant_pattern 4 0 0]),
     (3192, 2, False, [REDUCE sym_list_literal 4 0 0, REDUCE sym_constant_pattern 4 0 0]),
     (3195, 2, True, [REDUCE sym__literal 1 0 0, REDUCE sym_constant_pattern 1 0 0]),
     (3198, 2, False, [REDUCE sym__literal 1 0 0, REDUCE sym_constant_pattern 1 0 0]),
     (3201, 2, False, [REDUCE sym__primary 1 0 0, SHIFT 3534]),
     (3204, 2, True, [REDUCE sym_set_or_map_literal 6 0 0, REDUCE sym_constant_pattern 6 0 0]),
     (3207, 2, False, [REDUCE sym_set_or_map_literal 6 0 0, REDUCE sym_constant_pattern 6 0 0]),
     (3210, 2, True, [REDUCE sym_list_literal 6 0 0, REDUCE sym_constant_pattern 6 0 0]),
     (3213, 2, False, [REDUCE sym_list_literal 6 0 0, REDUCE sym_constant_pattern 6 0 0]),
     (3216, 2, True, [REDUCE sym_list_literal 5 0 0, REDUCE sym_constant_pattern 5 0 0]),
     (3219, 2, False, [REDUCE sym_list_literal 5 0 0, REDUCE sym_constant_pattern 5 0 0]),
     (3222, 1, True, [SHIFT 1716]),
     (3224, 3, False, [REDUCE sym__type_not_void_not_function 1 0 0, REDUCE sym__function_type_tail 1 0 0, SHIFT 1367]),
     (3228, 3, False, [REDUCE sym__type_not_void_not_function 1 0 0, REDUCE sym__function_type_tail 1 0 0, SHIFT 2283]),
     (3232, 2, False, [REDUCE sym__function_type_tail 1 0 0, SHIFT 1367]),
     (3235, 2, False, [REDUCE sym__function_type_tail 1 0 0, SHIFT 2283]),
     (3238, 2, True, [REDUCE sym_set_or_map_literal 5 0 0, REDUCE sym_constant_pattern 5 0 0]),
     (3241, 2, False, [REDUCE sym_set_or_map_literal 5 0 0, REDUCE sym_constant_pattern 5 0 0]),
     (3244, 2, True, [REDUCE sym_list_literal 7 0 0, REDUCE sym_constant_pattern 7 0 0]),
     (3247, 2, False, [REDUCE sym_list_literal 7 0 0, REDUCE sym_constant_pattern 7 0 0]),
     (3250, 2, True, [REDUCE sym_set_or_map_literal 7 0 0, REDUCE sym_constant_pattern 7 0 0]),
     (3253, 2, False, [REDUCE sym_set_or_map_literal 7 0 0, REDUCE sym_constant_pattern 7 0 0]),
     (3256, 2, False, [REDUCE sym__function_type_tail 2 0 0, SHIFT 1367]),
     (3259, 1, True, [SHIFT 1360]), (3261, 1, False, [REDUCE sym__metadata 1 0 0]),
     (3263, 1, True, [REDUCE sym__metadata 1 0 0]),
     (3265, 1, False, [REDUCE sym_scoped_identifier 3 0 11]),
     (3267, 1, True, [REDUCE sym_scoped_identifier 3 0 11]),
     (3269, 3, False, [REDUCE sym__type_not_void_not_function 2 0 0, REDUCE sym__function_type_tail 2 0 0, SHIFT 1367]),
     (3273, 2, True, [REDUCE aux_sym__function_type_tails 2 0 0, SHIFT_REPEAT 1360]),
     (3276, 1, False, [REDUCE aux_sym__metadata_repeat1 2 0 0]),
     (3278, 1, True, [REDUCE aux_sym__metadata_repeat1 2 0 0]),
     (3280, 2, True, [REDUCE aux_sym__metadata_repeat1 2 0 0, SHIFT_REPEAT 3007]),
     (3283, 2, False, [REDUCE sym__function_type_tail 3 0 0, SHIFT 1367]),
     (3286, 1, True, [SHIFT 315]), (3288, 1, True, [SHIFT 318]), (3290, 1, True, [SHIFT 3501]),
     (3292, 1, True, [SHIFT 3478]),
     (3294, 2, False, [REDUCE sym__type_not_void_not_function 1 0 0, SHIFT 1367]),
     (3297, 2, False, [REDUCE sym__type_not_void_not_function 1 0 0, SHIFT 2042]),
     (3300, 1, False, [REDUCE sym__assignment_operator 1 0 0]),
     (3302, 1, True, [REDUCE sym__assignment_operator 1 0 0]),
     (3304, 1, False, [REDUCE sym_prefix_operator 1 0 0]),
     (3306, 1, True, [REDUCE sym_prefix_operator 1 0 0]),
     (3308, 2, False, [REDUCE sym_prefix_operator 1 0 0, SHIFT 2134]),
     (3311, 2, True, [REDUCE sym_prefix_operator 1 0 0, SHIFT 2134]),
     (3314, 1, True, [SHIFT 3457]), (3316, 1, True, [SHIFT 1673]),
     (3318, 3, False, [REDUCE sym__type_not_void_not_function 1 0 0, REDUCE sym__function_type_tail 1 0 0, SHIFT 1490]),
     (3322, 3, False, [REDUCE sym__type_not_void_not_function 1 0 0, REDUCE sym__function_type_tail 1 0 0, SHIFT 2269]),
     (3326, 1, True, [SHIFT 346]), (3328, 1, True, [SHIFT 348]),
     (3330, 2, False, [REDUCE sym__function_type_tail 1 0 0, SHIFT 1490]),
     (3333, 2, False, [REDUCE sym__function_type_tail 1 0 0, SHIFT 2269]),
     (3336, 1, True, [SHIFT 3279]), (3338, 1, True, [SHIFT 373]), (3340, 1, True, [SHIFT 341]),
     (3342, 1, True, [SHIFT 358]), (3344, 1, True, [SHIFT 359]), (3346, 1, False, [SHIFT 3338]),
     (3348, 1, True, [SHIFT 312]), (3350, 1, True, [SHIFT 357]), (3352, 1, True, [SHIFT 3391]),
     (3354, 1, True, [SHIFT 364]), (3356, 1, True, [SHIFT 314]), (3358, 1, True, [SHIFT 3401]),
     (3360, 1, True, [SHIFT 3448]),
     (3362, 2, False, [REDUCE sym__type_not_void_not_function 2 0 0, SHIFT 1367]),
     (3365, 2, False, [REDUCE sym__function_type_tail 3 0 0, SHIFT 1490]),
     (3368, 2, False, [REDUCE sym__function_type_tail 2 0 0, SHIFT 1490]),
     (3371, 3, False, [REDUCE sym__type_not_void_not_function 2 0 0, REDUCE sym__function_type_tail 2 0 0, SHIFT 1490]),
     (3375, 1, False, [SHIFT 946]),
     (3377, 2, False, [REDUCE sym__type_not_void 1 0 0, SHIFT 1367]),
     (3380, 1, False, [SHIFT 1191]), (3382, 1, False, [REDUCE aux_sym__metadata_repeat1 1 0 0]),
     (3384, 1, True, [REDUCE aux_sym__metadata_repeat1 1 0 0]),
     (3386, 2, True, [REDUCE aux_sym__function_type_tails 2 0 0, SHIFT_REPEAT 1489]),
     (3389, 1, True, [SHIFT 1489]),
     (3391, 2, False, [REDUCE sym__function_type_tail 4 0 0, SHIFT 1367]),
     (3394, 1, False, [REDUCE sym_annotation 4 0 2]),
     (3396, 1, True, [REDUCE sym_annotation 4 0 2]), (3398, 1, True, [SHIFT 165]),
     (3400, 1, True, [SHIFT 3444]), (3402, 1, False, [REDUCE sym_annotation 3 0 2]),
     (3404, 1, True, [REDUCE sym_annotation 3 0 2]), (3406, 1, False, [SHIFT 1452]),
     (3408, 1, False, [SHIFT 1614]), (3410, 1, False, [SHIFT 1350]),
     (3412, 1, False, [REDUCE sym_logical_and_operator 1 0 0]),
     (3414, 1, True, [REDUCE sym_logical_and_operator 1 0 0]),
     (3416, 1, False, [REDUCE sym_shift_operator 1 0 0]),
     (3418, 1, True, [REDUCE sym_shift_operator 1 0 0]),
     (3420, 1, False, [REDUCE sym_logical_or_operator 1 0 0]),
     (3422, 1, True, [REDUCE sym_logical_or_operator 1 0 0]),
     (3424, 1, False, [REDUCE sym_additive_operator 1 0 0]),
     (3426, 1, True, [REDUCE sym_additive_operator 1 0 0]),
     (3428, 1, False, [REDUCE sym__shift_operator 1 0 0]),
     (3430, 1, True, [REDUCE sym__shift_operator 1 0 0])]"

definition ts_parse_actions_11 :: "action_group list" where
  "ts_parse_actions_11 = [
     (3432, 2, True, [REDUCE aux_sym__if_null_expression 2 0 37, SHIFT_REPEAT 311]),
     (3435, 1, False, [REDUCE sym_tilde_operator 1 0 0]),
     (3437, 1, True, [REDUCE sym_tilde_operator 1 0 0]),
     (3439, 2, False, [REDUCE aux_sym_bitwise_or_expression_repeat1 2 0 0, SHIFT_REPEAT 315]),
     (3442, 1, False, [REDUCE sym__multiplicative_operator 1 0 0]),
     (3444, 1, True, [REDUCE sym__multiplicative_operator 1 0 0]),
     (3446, 1, False, [REDUCE sym_multiplicative_operator 1 0 0]),
     (3448, 1, True, [REDUCE sym_multiplicative_operator 1 0 0]),
     (3450, 2, True, [REDUCE aux_sym_bitwise_xor_expression_repeat1 2 0 0, SHIFT_REPEAT 316]),
     (3453, 1, True, [REDUCE aux_sym_program_repeat2 2 0 0]),
     (3455, 1, False, [REDUCE aux_sym_program_repeat2 2 0 0]),
     (3457, 2, True, [REDUCE aux_sym_program_repeat2 2 0 0, SHIFT_REPEAT 3007]),
     (3460, 2, False, [REDUCE aux_sym_program_repeat2 2 0 0, SHIFT_REPEAT 1885]),
     (3463, 2, False, [REDUCE aux_sym_bitwise_and_expression_repeat1 2 0 0, SHIFT_REPEAT 318]),
     (3466, 1, True, [SHIFT 1695]),
     (3468, 2, False, [REDUCE sym__function_type_tail 1 0 0, SHIFT 1588]),
     (3471, 2, False, [REDUCE sym__function_type_tail 1 0 0, SHIFT 2277]),
     (3474, 3, False, [REDUCE sym__type_not_void_not_function 1 0 0, REDUCE sym__function_type_tail 1 0 0, SHIFT 1588]),
     (3478, 3, False, [REDUCE sym__type_not_void_not_function 1 0 0, REDUCE sym__function_type_tail 1 0 0, SHIFT 2277]),
     (3482, 1, False, [REDUCE sym_case_builtin 1 0 0]),
     (3484, 1, True, [REDUCE sym_case_builtin 1 0 0]), (3486, 1, False, [SHIFT 3275]),
     (3488, 2, False, [REDUCE sym__type_not_void_not_function 1 0 0, SHIFT 1490]),
     (3491, 2, False, [REDUCE sym__type_not_void_not_function 1 0 0, SHIFT 2044]),
     (3494, 1, False, [REDUCE sym_negation_operator 1 0 0]),
     (3496, 1, True, [REDUCE sym_negation_operator 1 0 0]), (3498, 1, True, [SHIFT 1556]),
     (3500, 2, False, [REDUCE sym__function_type_tail 4 0 0, SHIFT 1490]),
     (3503, 2, True, [REDUCE aux_sym__function_type_tails 2 0 0, SHIFT_REPEAT 1556]),
     (3506, 1, True, [SHIFT 1717]),
     (3508, 2, True, [REDUCE sym__function_type_tail 1 0 0, SHIFT 1566]),
     (3511, 1, True, [SHIFT 2297]),
     (3513, 2, False, [REDUCE sym__function_type_tail 3 0 0, SHIFT 1588]),
     (3516, 2, False, [REDUCE sym__function_type_tail 2 0 0, SHIFT 1588]),
     (3519, 2, False, [REDUCE aux_sym_string_literal_repeat1 2 0 0, SHIFT_REPEAT 2227]),
     (3522, 2, False, [REDUCE aux_sym_string_literal_repeat1 2 0 0, SHIFT_REPEAT 2226]),
     (3525, 2, True, [REDUCE aux_sym_string_literal_repeat1 2 0 0, SHIFT_REPEAT 2160]),
     (3528, 2, True, [REDUCE aux_sym_string_literal_repeat1 2 0 0, SHIFT_REPEAT 2170]),
     (3531, 2, False, [REDUCE aux_sym_string_literal_repeat1 2 0 0, SHIFT_REPEAT 2306]),
     (3534, 2, False, [REDUCE aux_sym_string_literal_repeat1 2 0 0, SHIFT_REPEAT 2304]),
     (3537, 2, True, [REDUCE aux_sym_string_literal_repeat1 2 0 0, SHIFT_REPEAT 2214]),
     (3540, 2, True, [REDUCE aux_sym_string_literal_repeat1 2 0 0, SHIFT_REPEAT 2213]),
     (3543, 3, False, [REDUCE sym__type_not_void_not_function 2 0 0, REDUCE sym__function_type_tail 2 0 0, SHIFT 1588]),
     (3547, 2, True, [REDUCE aux_sym__metadata_repeat1 2 0 0, SHIFT_REPEAT 3045]),
     (3550, 1, True, [REDUCE aux_sym_program_repeat3 2 0 0]),
     (3552, 1, False, [REDUCE aux_sym_program_repeat3 2 0 0]),
     (3554, 2, True, [REDUCE aux_sym_program_repeat3 2 0 0, SHIFT_REPEAT 3045]),
     (3557, 2, True, [REDUCE aux_sym_program_repeat3 2 0 0, SHIFT_REPEAT 1809]),
     (3560, 2, False, [REDUCE sym__type_not_void 1 0 0, SHIFT 1490]),
     (3563, 2, False, [REDUCE sym__type_not_void_not_function 2 0 0, SHIFT 1490]),
     (3566, 1, True, [SHIFT 3342]), (3568, 1, False, [SHIFT 2936]),
     (3570, 1, True, [SHIFT 3345]), (3572, 1, True, [SHIFT 2936]),
     (3574, 2, False, [REDUCE sym__type_not_void_not_function 1 0 0, SHIFT 1588]),
     (3577, 2, False, [REDUCE sym__type_not_void_not_function 1 0 0, SHIFT 2048]),
     (3580, 2, True, [REDUCE aux_sym__if_null_expression 2 0 37, SHIFT_REPEAT 325]),
     (3583, 1, True, [REDUCE sym_script_tag 3 0 0]),
     (3585, 1, False, [REDUCE sym_script_tag 3 0 0]),
     (3587, 2, False, [REDUCE aux_sym_bitwise_or_expression_repeat1 2 0 0, SHIFT_REPEAT 312]),
     (3590, 2, True, [REDUCE aux_sym_bitwise_xor_expression_repeat1 2 0 0, SHIFT_REPEAT 326]),
     (3593, 2, False, [REDUCE aux_sym_bitwise_and_expression_repeat1 2 0 0, SHIFT_REPEAT 357]),
     (3596, 1, True, [SHIFT 3557]), (3598, 1, False, [SHIFT 2731]),
     (3600, 1, True, [SHIFT 2731]), (3602, 1, False, [SHIFT 2616]),
     (3604, 1, False, [SHIFT 2807]), (3606, 1, True, [SHIFT 2807]),
     (3608, 1, False, [SHIFT 2720]), (3610, 1, True, [SHIFT 2720]),
     (3612, 1, True, [REDUCE sym_import_specification 6 0 0]),
     (3614, 1, False, [REDUCE sym_import_specification 6 0 0]),
     (3616, 2, True, [REDUCE sym__function_type_tail 2 0 0, SHIFT 1566]),
     (3619, 1, True, [REDUCE sym_library_name 3 0 0]),
     (3621, 1, False, [REDUCE sym_library_name 3 0 0]),
     (3623, 2, True, [REDUCE sym__function_type_tail 3 0 0, SHIFT 1566]),
     (3626, 1, True, [REDUCE sym_import_specification 3 0 0]),
     (3628, 1, False, [REDUCE sym_import_specification 3 0 0]),
     (3630, 2, False, [REDUCE aux_sym__function_type_tails 2 0 0, SHIFT_REPEAT 1625]),
     (3633, 1, True, [REDUCE sym_import_specification 5 0 0]),
     (3635, 1, False, [REDUCE sym_import_specification 5 0 0]),
     (3637, 1, True, [REDUCE sym_library_export 4 0 0]),
     (3639, 1, False, [REDUCE sym_library_export 4 0 0]),
     (3641, 1, True, [REDUCE aux_sym_program_repeat1 1 0 0]),
     (3643, 1, False, [REDUCE aux_sym_program_repeat1 1 0 0]),
     (3645, 1, True, [REDUCE sym_library_import 2 0 0]),
     (3647, 1, False, [REDUCE sym_library_import 2 0 0]),
     (3649, 1, True, [REDUCE sym_import_or_export 1 0 0]),
     (3651, 1, False, [REDUCE sym_import_or_export 1 0 0]),
     (3653, 1, True, [REDUCE sym_library_name 4 0 0]),
     (3655, 1, False, [REDUCE sym_library_name 4 0 0]),
     (3657, 1, True, [REDUCE sym_library_import 1 0 0]),
     (3659, 1, False, [REDUCE sym_library_import 1 0 0]),
     (3661, 1, True, [REDUCE sym_import_specification 4 0 0]),
     (3663, 1, False, [REDUCE sym_import_specification 4 0 0]),
     (3665, 2, False, [REDUCE sym__type_not_void 1 0 0, SHIFT 1588]),
     (3668, 2, True, [REDUCE sym__cascade_subsection 1 0 0, SHIFT 168]),
     (3671, 2, True, [REDUCE sym__cascade_subsection 2 0 0, SHIFT 168]),
     (3674, 1, True, [REDUCE sym_import_specification 7 0 0]),
     (3676, 1, False, [REDUCE sym_import_specification 7 0 0]),
     (3678, 2, False, [REDUCE sym__function_type_tail 4 0 0, SHIFT 1588]),
     (3681, 2, False, [REDUCE sym__type_not_void_not_function 2 0 0, SHIFT 1588]),
     (3684, 1, True, [REDUCE sym_library_export 3 0 0]),
     (3686, 1, False, [REDUCE sym_library_export 3 0 0]),
     (3688, 1, True, [REDUCE sym_library_export 5 0 0]),
     (3690, 1, False, [REDUCE sym_library_export 5 0 0]), (3692, 1, True, [SHIFT 3499]),
     (3694, 2, True, [REDUCE aux_sym__if_null_expression 2 0 37, SHIFT_REPEAT 340]),
     (3697, 2, True, [REDUCE sym__function_type_tail 4 0 0, SHIFT 1566]),
     (3700, 2, False, [REDUCE aux_sym_bitwise_and_expression_repeat1 2 0 0, SHIFT_REPEAT 348]),
     (3703, 2, True, [REDUCE aux_sym_bitwise_xor_expression_repeat1 2 0 0, SHIFT_REPEAT 347]),
     (3706, 2, False, [REDUCE aux_sym_bitwise_or_expression_repeat1 2 0 0, SHIFT_REPEAT 346]),
     (3709, 2, False, [REDUCE aux_sym_bitwise_and_expression_repeat1 2 0 0, SHIFT_REPEAT 359]),
     (3712, 2, True, [REDUCE aux_sym_bitwise_xor_expression_repeat1 2 0 0, SHIFT_REPEAT 360]),
     (3715, 2, False, [REDUCE aux_sym_bitwise_or_expression_repeat1 2 0 0, SHIFT_REPEAT 358]),
     (3718, 2, True, [REDUCE aux_sym__if_null_expression 2 0 37, SHIFT_REPEAT 338]),
     (3721, 2, False, [REDUCE sym__external_and_static 1 0 0, SHIFT 2247]),
     (3724, 2, True, [REDUCE sym__external_and_static 1 0 0, SHIFT 1833]),
     (3727, 2, False, [REDUCE sym__external_and_static 1 0 0, SHIFT 1896]),
     (3730, 2, False, [REDUCE sym__external_and_static 1 0 0, SHIFT 1625]),
     (3733, 1, False, [REDUCE sym__external_and_static 1 0 0]), (3735, 1, False, [SHIFT 2617]),
     (3737, 1, True, [REDUCE aux_sym_program_repeat2 1 0 0]),
     (3739, 1, False, [REDUCE aux_sym_program_repeat2 1 0 0]), (3741, 1, True, [SHIFT 1810]),
     (3743, 1, True, [SHIFT 1887]), (3745, 1, True, [SHIFT 1540]),
     (3747, 1, True, [REDUCE sym_part_directive 4 0 0]),
     (3749, 1, False, [REDUCE sym_part_directive 4 0 0]), (3751, 1, True, [SHIFT 1403]),
     (3753, 1, True, [SHIFT 853]), (3755, 1, True, [SHIFT 1706]), (3757, 1, True, [SHIFT 1414]),
     (3759, 1, True, [SHIFT 1024]), (3761, 1, True, [SHIFT 845]), (3763, 1, True, [SHIFT 1620]),
     (3765, 1, True, [SHIFT 1521]), (3767, 1, True, [SHIFT 1066]), (3769, 1, True, [SHIFT 1058]),
     (3771, 1, True, [SHIFT 1683]), (3773, 1, True, [SHIFT 1506]), (3775, 1, True, [SHIFT 1651]),
     (3777, 1, True, [REDUCE sym_part_directive 3 0 0]),
     (3779, 1, False, [REDUCE sym_part_directive 3 0 0]), (3781, 1, True, [SHIFT 893]),
     (3783, 1, True, [SHIFT 1638]), (3785, 1, True, [SHIFT 1428]), (3787, 1, True, [SHIFT 1676]),
     (3789, 2, False, [REDUCE aux_sym_string_literal_repeat1 2 0 0, SHIFT_REPEAT 2196]),
     (3792, 2, False, [REDUCE aux_sym_string_literal_repeat1 2 0 0, SHIFT_REPEAT 2198])]"

definition ts_parse_actions_12 :: "action_group list" where
  "ts_parse_actions_12 = [
     (3795, 2, True, [REDUCE aux_sym_string_literal_repeat1 2 0 0, SHIFT_REPEAT 2178]),
     (3798, 2, True, [REDUCE aux_sym_string_literal_repeat1 2 0 0, SHIFT_REPEAT 2181]),
     (3801, 2, False, [REDUCE aux_sym_string_literal_repeat1 2 0 0, SHIFT_REPEAT 2294]),
     (3804, 2, False, [REDUCE aux_sym_string_literal_repeat1 2 0 0, SHIFT_REPEAT 2301]),
     (3807, 2, True, [REDUCE aux_sym_string_literal_repeat1 2 0 0, SHIFT_REPEAT 2211]),
     (3810, 2, True, [REDUCE aux_sym_string_literal_repeat1 2 0 0, SHIFT_REPEAT 2215]),
     (3813, 1, True, [REDUCE sym_part_of_directive 3 0 0]),
     (3815, 1, False, [REDUCE sym_part_of_directive 3 0 0]),
     (3817, 1, True, [REDUCE sym_part_of_directive 4 0 0]),
     (3819, 1, False, [REDUCE sym_part_of_directive 4 0 0]),
     (3821, 1, True, [REDUCE aux_sym_program_repeat3 1 0 0]),
     (3823, 1, False, [REDUCE aux_sym_program_repeat3 1 0 0]),
     (3825, 1, True, [REDUCE sym__native 1 0 0]), (3827, 1, False, [REDUCE sym__native 1 0 0]),
     (3829, 2, False, [REDUCE sym__var_or_type 1 0 0, SHIFT 1614]),
     (3832, 1, True, [REDUCE sym_class_definition 5 0 33]),
     (3834, 1, False, [REDUCE sym_class_definition 5 0 33]),
     (3836, 1, True, [REDUCE sym_extension_declaration 4 0 13]),
     (3838, 1, False, [REDUCE sym_extension_declaration 4 0 13]),
     (3840, 1, True, [REDUCE sym_extension_body 3 0 0]),
     (3842, 1, False, [REDUCE sym_extension_body 3 0 0]),
     (3844, 1, True, [REDUCE sym_mixin_declaration 8 0 0]),
     (3846, 1, False, [REDUCE sym_mixin_declaration 8 0 0]),
     (3848, 1, True, [REDUCE sym__top_level_definition 4 0 0]),
     (3850, 1, False, [REDUCE sym__top_level_definition 4 0 0]),
     (3852, 1, True, [REDUCE sym_extension_declaration 6 0 45]),
     (3854, 1, False, [REDUCE sym_extension_declaration 6 0 45]),
     (3856, 1, True, [REDUCE sym_enum_declaration 7 0 57]),
     (3858, 1, False, [REDUCE sym_enum_declaration 7 0 57]),
     (3860, 1, True, [REDUCE sym_enum_declaration 6 0 44]),
     (3862, 1, False, [REDUCE sym_enum_declaration 6 0 44]),
     (3864, 1, True, [REDUCE sym_class_definition 6 0 43]),
     (3866, 1, False, [REDUCE sym_class_definition 6 0 43]),
     (3868, 1, True, [REDUCE sym_mixin_application_class 5 0 0]),
     (3870, 1, False, [REDUCE sym_mixin_application_class 5 0 0]),
     (3872, 1, True, [REDUCE sym_class_definition 4 0 15]),
     (3874, 1, False, [REDUCE sym_class_definition 4 0 15]),
     (3876, 1, True, [REDUCE sym_extension_declaration 7 0 58]),
     (3878, 1, False, [REDUCE sym_extension_declaration 7 0 58]),
     (3880, 1, True, [REDUCE sym_class_definition 7 0 59]),
     (3882, 1, False, [REDUCE sym_class_definition 7 0 59]),
     (3884, 1, True, [REDUCE sym_class_definition 4 0 16]),
     (3886, 1, False, [REDUCE sym_class_definition 4 0 16]),
     (3888, 1, True, [REDUCE sym_mixin_declaration 7 0 0]),
     (3890, 1, False, [REDUCE sym_mixin_declaration 7 0 0]),
     (3892, 1, True, [REDUCE sym_extension_declaration 6 0 46]),
     (3894, 1, False, [REDUCE sym_extension_declaration 6 0 46]),
     (3896, 1, True, [REDUCE sym_mixin_application_class 4 0 0]),
     (3898, 1, False, [REDUCE sym_mixin_application_class 4 0 0]),
     (3900, 1, True, [REDUCE sym_type_alias 7 0 0]),
     (3902, 1, False, [REDUCE sym_type_alias 7 0 0]),
     (3904, 1, True, [REDUCE sym_class_definition 5 0 26]),
     (3906, 1, False, [REDUCE sym_class_definition 5 0 26]),
     (3908, 1, True, [REDUCE sym_class_definition 5 0 27]),
     (3910, 1, False, [REDUCE sym_class_definition 5 0 27]),
     (3912, 1, True, [REDUCE sym_class_definition 5 0 28]),
     (3914, 1, False, [REDUCE sym_class_definition 5 0 28]),
     (3916, 1, True, [REDUCE sym_class_definition 6 0 47]),
     (3918, 1, False, [REDUCE sym_class_definition 6 0 47]),
     (3920, 1, True, [REDUCE sym_enum_declaration 3 0 5]),
     (3922, 1, False, [REDUCE sym_enum_declaration 3 0 5]),
     (3924, 1, True, [REDUCE sym_extension_declaration 6 0 41]),
     (3926, 1, False, [REDUCE sym_extension_declaration 6 0 41]),
     (3928, 1, True, [REDUCE sym_enum_declaration 5 0 29]),
     (3930, 1, False, [REDUCE sym_enum_declaration 5 0 29]),
     (3932, 1, True, [REDUCE sym__top_level_definition 2 0 0]),
     (3934, 1, False, [REDUCE sym__top_level_definition 2 0 0]),
     (3936, 1, True, [REDUCE sym_extension_declaration 5 0 30]),
     (3938, 1, False, [REDUCE sym_extension_declaration 5 0 30]),
     (3940, 1, True, [REDUCE sym_class_definition 4 0 17]),
     (3942, 1, False, [REDUCE sym_class_definition 4 0 17]),
     (3944, 1, True, [REDUCE sym_class_definition 6 0 48]),
     (3946, 1, False, [REDUCE sym_class_definition 6 0 48]),
     (3948, 1, True, [REDUCE sym_enum_declaration 4 0 18]),
     (3950, 1, False, [REDUCE sym_enum_declaration 4 0 18]),
     (3952, 1, True, [REDUCE sym_class_definition 6 0 49]),
     (3954, 1, False, [REDUCE sym_class_definition 6 0 49]),
     (3956, 2, False, [REDUCE sym__final_const_var_or_type 1 0 0, SHIFT 1614]),
     (3959, 1, True, [REDUCE sym__top_level_definition 5 0 0]),
     (3961, 1, False, [REDUCE sym__top_level_definition 5 0 0]),
     (3963, 1, True, [REDUCE sym_mixin_declaration 6 0 0]),
     (3965, 1, False, [REDUCE sym_mixin_declaration 6 0 0]),
     (3967, 1, True, [REDUCE sym_type_alias 6 0 0]),
     (3969, 1, False, [REDUCE sym_type_alias 6 0 0]),
     (3971, 1, True, [REDUCE sym_class_definition 4 0 18]),
     (3973, 1, False, [REDUCE sym_class_definition 4 0 18]),
     (3975, 1, True, [REDUCE sym_type_alias 4 0 0]),
     (3977, 1, False, [REDUCE sym_type_alias 4 0 0]),
     (3979, 1, True, [REDUCE sym_class_definition 5 0 31]),
     (3981, 1, False, [REDUCE sym_class_definition 5 0 31]),
     (3983, 1, True, [REDUCE sym__top_level_definition 6 0 0]),
     (3985, 1, False, [REDUCE sym__top_level_definition 6 0 0]),
     (3987, 1, True, [REDUCE sym_mixin_declaration 4 0 0]),
     (3989, 1, False, [REDUCE sym_mixin_declaration 4 0 0]),
     (3991, 1, True, [REDUCE sym__top_level_definition 1 0 0]),
     (3993, 1, False, [REDUCE sym__top_level_definition 1 0 0]),
     (3995, 1, True, [REDUCE sym_mixin_declaration 3 0 0]),
     (3997, 1, False, [REDUCE sym_mixin_declaration 3 0 0]),
     (3999, 1, True, [REDUCE sym__top_level_definition 3 0 0]),
     (4001, 1, False, [REDUCE sym__top_level_definition 3 0 0]),
     (4003, 1, True, [REDUCE sym_class_definition 5 0 32]),
     (4005, 1, False, [REDUCE sym_class_definition 5 0 32]),
     (4007, 1, True, [REDUCE aux_sym_program_repeat4 1 0 0]),
     (4009, 1, False, [REDUCE aux_sym_program_repeat4 1 0 0]),
     (4011, 1, True, [REDUCE sym_enum_declaration 4 0 12]),
     (4013, 1, False, [REDUCE sym_enum_declaration 4 0 12]),
     (4015, 1, True, [REDUCE sym_extension_declaration 5 0 24]),
     (4017, 1, False, [REDUCE sym_extension_declaration 5 0 24]),
     (4019, 1, True, [REDUCE sym_class_definition 2 0 0]),
     (4021, 1, False, [REDUCE sym_class_definition 2 0 0]),
     (4023, 1, True, [REDUCE sym_extension_declaration 5 0 23]),
     (4025, 1, False, [REDUCE sym_extension_declaration 5 0 23]),
     (4027, 1, True, [REDUCE sym_enum_body 6 0 0]),
     (4029, 1, False, [REDUCE sym_enum_body 6 0 0]),
     (4031, 1, True, [REDUCE sym_enum_body 5 0 0]),
     (4033, 1, False, [REDUCE sym_enum_body 5 0 0]),
     (4035, 1, True, [REDUCE sym_type_alias 5 0 0]),
     (4037, 1, False, [REDUCE sym_type_alias 5 0 0]),
     (4039, 1, True, [REDUCE sym_extension_body 2 0 0]),
     (4041, 1, False, [REDUCE sym_extension_body 2 0 0]),
     (4043, 1, True, [REDUCE sym_enum_body 4 0 0]),
     (4045, 1, False, [REDUCE sym_enum_body 4 0 0]),
     (4047, 1, True, [REDUCE sym_class_definition 3 0 5]),
     (4049, 1, False, [REDUCE sym_class_definition 3 0 5]),
     (4051, 1, True, [REDUCE sym_enum_body 7 0 0]),
     (4053, 1, False, [REDUCE sym_enum_body 7 0 0]),
     (4055, 1, True, [REDUCE sym_enum_declaration 5 0 22]),
     (4057, 1, False, [REDUCE sym_enum_declaration 5 0 22]),
     (4059, 1, True, [REDUCE sym_mixin_declaration 9 0 0]),
     (4061, 1, False, [REDUCE sym_mixin_declaration 9 0 0]),
     (4063, 1, True, [REDUCE sym_enum_declaration 6 0 40]),
     (4065, 1, False, [REDUCE sym_enum_declaration 6 0 40]),
     (4067, 1, True, [REDUCE sym_class_body 3 0 0]),
     (4069, 1, False, [REDUCE sym_class_body 3 0 0]),
     (4071, 1, True, [REDUCE sym_enum_body 3 0 0]),
     (4073, 1, False, [REDUCE sym_enum_body 3 0 0]),
     (4075, 1, True, [REDUCE sym_class_definition 3 0 0]),
     (4077, 1, False, [REDUCE sym_class_definition 3 0 0]),
     (4079, 1, True, [REDUCE sym_class_body 2 0 0]),
     (4081, 1, False, [REDUCE sym_class_body 2 0 0]),
     (4083, 1, True, [REDUCE sym_mixin_declaration 5 0 0]),
     (4085, 1, False, [REDUCE sym_mixin_declaration 5 0 0]), (4087, 1, False, [SHIFT 1933]),
     (4089, 1, False, [REDUCE sym__type 1 0 0]), (4091, 1, True, [REDUCE sym__type 1 0 0]),
     (4093, 2, False, [REDUCE sym__external 1 0 0, SHIFT 1614]),
     (4096, 2, True, [REDUCE sym__external 1 0 0, SHIFT 1833]),
     (4099, 2, False, [REDUCE sym__external 1 0 0, SHIFT 1896]),
     (4102, 1, False, [REDUCE sym__external 1 0 0]),
     (4104, 2, False, [REDUCE sym__external 1 0 0, SHIFT 1625])]"

definition ts_parse_actions_13 :: "action_group list" where
  "ts_parse_actions_13 = [
     (4107, 2, False, [REDUCE sym__external 1 0 0, SHIFT 2834]),
     (4110, 2, False, [REDUCE sym__external 1 0 0, SHIFT 2149]), (4113, 1, True, [SHIFT 3445]),
     (4115, 1, True, [SHIFT 3359]), (4117, 1, False, [SHIFT 2164]),
     (4119, 1, False, [REDUCE sym__type_not_function 1 0 0]),
     (4121, 2, False, [REDUCE sym__final_const_var_or_type 1 0 0, SHIFT 2167]),
     (4124, 1, True, [SHIFT 149]), (4126, 1, True, [SHIFT 141]), (4128, 1, True, [SHIFT 67]),
     (4130, 1, False, [REDUCE sym__final_const_var_or_type 1 0 0]), (4132, 1, True, [SHIFT 90]),
     (4134, 1, True, [SHIFT 89]), (4136, 1, True, [SHIFT 70]), (4138, 1, False, [SHIFT 2580]),
     (4140, 1, True, [SHIFT 3440]), (4142, 1, True, [SHIFT 3353]), (4144, 1, True, [SHIFT 1906]),
     (4146, 1, True, [SHIFT 1549]), (4148, 1, True, [SHIFT 3562]),
     (4150, 1, False, [SHIFT 2060]), (4152, 1, True, [SHIFT 3350]),
     (4154, 1, True, [SHIFT 1903]), (4156, 1, True, [SHIFT 1649]), (4158, 1, True, [SHIFT 1912]),
     (4160, 1, True, [SHIFT 1436]), (4162, 1, True, [SHIFT 1902]), (4164, 1, True, [SHIFT 1678]),
     (4166, 1, True, [SHIFT 1895]), (4168, 1, True, [SHIFT 889]), (4170, 1, True, [SHIFT 1892]),
     (4172, 1, True, [SHIFT 898]), (4174, 1, True, [SHIFT 1907]), (4176, 1, True, [SHIFT 3358]),
     (4178, 1, True, [SHIFT 3357]), (4180, 1, True, [SHIFT 1910]), (4182, 1, True, [SHIFT 1652]),
     (4184, 1, True, [SHIFT 1889]), (4186, 1, True, [SHIFT 1519]), (4188, 1, True, [SHIFT 3356]),
     (4190, 1, True, [SHIFT 1899]), (4192, 1, True, [SHIFT 838]), (4194, 1, True, [SHIFT 3291]),
     (4196, 1, True, [SHIFT 3568]), (4198, 1, True, [SHIFT 3377]), (4200, 1, True, [SHIFT 3354]),
     (4202, 1, True, [SHIFT 3441]), (4204, 1, True, [SHIFT 1890]), (4206, 1, True, [SHIFT 1029]),
     (4208, 1, True, [SHIFT 3348]), (4210, 1, True, [SHIFT 1886]), (4212, 1, True, [SHIFT 1032]),
     (4214, 1, True, [SHIFT 1900]), (4216, 1, True, [SHIFT 1632]), (4218, 1, True, [SHIFT 1913]),
     (4220, 1, True, [SHIFT 1432]), (4222, 1, True, [SHIFT 3489]), (4224, 1, True, [SHIFT 1888]),
     (4226, 1, True, [SHIFT 1023]), (4228, 1, True, [SHIFT 3323]), (4230, 1, True, [SHIFT 3322]),
     (4232, 1, True, [SHIFT 3507]), (4234, 1, True, [SHIFT 3512]), (4236, 1, True, [SHIFT 1891]),
     (4238, 1, True, [SHIFT 1672]), (4240, 1, True, [SHIFT 1884]), (4242, 1, True, [SHIFT 1447]),
     (4244, 1, True, [SHIFT 3321]), (4246, 1, True, [SHIFT 3318]), (4248, 1, True, [SHIFT 3570]),
     (4250, 1, True, [SHIFT 3517]), (4252, 1, True, [SHIFT 3309]), (4254, 1, True, [SHIFT 3494]),
     (4256, 1, True, [SHIFT 3460]), (4258, 1, True, [SHIFT 3438]), (4260, 1, True, [SHIFT 3289]),
     (4262, 1, True, [SHIFT 3437]), (4264, 1, True, [SHIFT 3297]), (4266, 1, True, [SHIFT 3306]),
     (4268, 1, True, [SHIFT 3364]), (4270, 1, True, [SHIFT 1897]), (4272, 1, True, [SHIFT 1543]),
     (4274, 1, True, [SHIFT 3325]), (4276, 1, True, [REDUCE sym__simple_formal_parameter 1 0 0]),
     (4278, 1, True, [SHIFT 709]), (4280, 2, True, [REDUCE sym__type_name 1 0 1, SHIFT 2297]),
     (4283, 1, False, [REDUCE sym__type_not_function 2 0 0]),
     (4285, 1, False, [REDUCE sym__operator 1 0 0]),
     (4287, 1, True, [REDUCE sym__operator 1 0 0]), (4289, 1, False, [SHIFT 2167]),
     (4291, 1, True, [SHIFT 112]), (4293, 1, True, [SHIFT 111]), (4295, 1, True, [SHIFT 69]),
     (4297, 1, True, [SHIFT 148]), (4299, 1, True, [SHIFT 147]), (4301, 1, True, [SHIFT 66]),
     (4303, 1, True, [SHIFT 255]), (4305, 1, False, [SHIFT 3158]), (4307, 1, True, [SHIFT 2010]),
     (4309, 1, True, [SHIFT 3273]), (4311, 1, True, [SHIFT 3431]),
     (4313, 1, False, [REDUCE sym__type 2 0 0]), (4315, 1, True, [REDUCE sym__type 2 0 0]),
     (4317, 1, True, [REDUCE sym_constant_pattern 1 0 0]),
     (4319, 2, True, [REDUCE sym_constant_pattern 1 0 0, REDUCE sym__type_name 1 0 1]),
     (4322, 1, False, [REDUCE sym_constant_pattern 1 0 0]),
     (4324, 2, True, [REDUCE sym__type_name 1 0 1, SHIFT 3499]), (4327, 1, True, [SHIFT 84]),
     (4329, 1, True, [SHIFT 83]), (4331, 1, True, [SHIFT 68]), (4333, 1, True, [SHIFT 226]),
     (4335, 1, False, [SHIFT 3206]), (4337, 1, True, [SHIFT 3366]),
     (4339, 1, True, [SHIFT 3367]), (4341, 1, True, [SHIFT 215]), (4343, 1, False, [SHIFT 3179]),
     (4345, 1, True, [SHIFT 3396]), (4347, 1, True, [SHIFT 3397]), (4349, 1, True, [SHIFT 1495]),
     (4351, 1, True, [SHIFT 1095]), (4353, 1, True, [REDUCE sym__simple_formal_parameter 2 0 0]),
     (4355, 1, True, [SHIFT 156]), (4357, 1, True, [SHIFT 153]), (4359, 1, True, [SHIFT 71]),
     (4361, 1, True, [SHIFT 1318]), (4363, 1, True, [SHIFT 944]), (4365, 1, True, [SHIFT 1379]),
     (4367, 2, True, [REDUCE aux_sym__assignable_selector_part_repeat1 2 0 0, SHIFT_REPEAT 221]),
     (4370, 2, True, [REDUCE aux_sym__assignable_selector_part_repeat1 2 0 0, SHIFT_REPEAT 165]),
     (4373, 2, False, [REDUCE aux_sym__assignable_selector_part_repeat1 2 0 0, SHIFT_REPEAT 3196]),
     (4376, 2, True, [REDUCE aux_sym__assignable_selector_part_repeat1 2 0 0, SHIFT_REPEAT 2010]),
     (4379, 2, True, [REDUCE aux_sym__assignable_selector_part_repeat1 2 0 0, SHIFT_REPEAT 1217]),
     (4382, 2, True, [REDUCE aux_sym__assignable_selector_part_repeat1 2 0 0, SHIFT_REPEAT 3378]),
     (4385, 2, True, [REDUCE aux_sym__assignable_selector_part_repeat1 2 0 0, SHIFT_REPEAT 3379]),
     (4388, 1, False, [REDUCE aux_sym_enum_body_repeat2 3 0 0]),
     (4390, 1, True, [REDUCE aux_sym_enum_body_repeat2 3 0 0]),
     (4392, 1, False, [REDUCE aux_sym_extension_body_repeat1 3 0 0]),
     (4394, 1, True, [REDUCE aux_sym_extension_body_repeat1 3 0 0]),
     (4396, 1, False, [REDUCE aux_sym_enum_body_repeat2 2 0 0]),
     (4398, 1, False, [REDUCE aux_sym_extension_body_repeat1 2 0 0]),
     (4400, 1, False, [SHIFT 2420]), (4402, 1, False, [SHIFT 2225]),
     (4404, 1, False, [REDUCE sym__var_or_type 1 0 0]),
     (4406, 3, False, [REDUCE sym__final_const_var_or_type 1 0 0, REDUCE sym__final_var_or_type 1 0 0, SHIFT 1614]),
     (4410, 2, False, [REDUCE sym__final_const_var_or_type 2 0 0, SHIFT 1614]),
     (4413, 1, False, [REDUCE sym__final_const_var_or_type 2 0 0]),
     (4415, 3, False, [REDUCE sym__var_or_type 1 0 0, REDUCE sym__final_var_or_type 1 0 0, SHIFT 1614]),
     (4419, 2, True, [REDUCE sym__type_name 1 0 1, REDUCE sym__simple_formal_parameter 1 0 0]),
     (4422, 1, True, [SHIFT 402]), (4424, 1, True, [SHIFT 3170])]"

definition ts_parse_actions_14 :: "action_group list" where
  "ts_parse_actions_14 = [
     (4426, 1, True, [REDUCE sym__strict_formal_parameter_list 5 0 0]),
     (4428, 1, False, [REDUCE sym__strict_formal_parameter_list 5 0 0]),
     (4430, 1, True, [REDUCE sym__formal_parameter_part 2 0 0]),
     (4432, 1, False, [REDUCE sym__formal_parameter_part 2 0 0]), (4434, 1, True, [SHIFT 2386]),
     (4436, 1, True, [REDUCE sym__strict_formal_parameter_list 2 0 0]),
     (4438, 1, False, [REDUCE sym__strict_formal_parameter_list 2 0 0]),
     (4440, 1, True, [REDUCE sym_map_pattern 5 0 0]),
     (4442, 1, False, [REDUCE sym_map_pattern 5 0 0]),
     (4444, 1, True, [REDUCE sym_object_pattern 4 0 0]),
     (4446, 1, False, [REDUCE sym_object_pattern 4 0 0]),
     (4448, 1, True, [REDUCE sym_list_pattern 5 0 0]),
     (4450, 1, False, [REDUCE sym_list_pattern 5 0 0]),
     (4452, 1, True, [REDUCE sym_formal_parameter_list 1 0 0]),
     (4454, 1, False, [REDUCE sym_formal_parameter_list 1 0 0]),
     (4456, 1, True, [REDUCE sym_record_pattern 5 0 0]),
     (4458, 1, False, [REDUCE sym_record_pattern 5 0 0]),
     (4460, 1, True, [REDUCE sym__identifier_or_new 1 0 0]), (4462, 1, True, [SHIFT 1257]),
     (4464, 1, True, [REDUCE sym__formal_parameter_part 1 0 0]),
     (4466, 1, False, [REDUCE sym__formal_parameter_part 1 0 0]), (4468, 1, False, [SHIFT 2189]),
     (4470, 1, True, [REDUCE sym__parenthesized_pattern 3 0 0]),
     (4472, 1, False, [REDUCE sym__parenthesized_pattern 3 0 0]),
     (4474, 1, True, [REDUCE sym__strict_formal_parameter_list 4 0 0]),
     (4476, 1, False, [REDUCE sym__strict_formal_parameter_list 4 0 0]),
     (4478, 1, True, [REDUCE sym_list_pattern 3 0 0]),
     (4480, 1, True, [REDUCE sym_record_pattern 3 0 0]),
     (4482, 1, False, [REDUCE sym_record_pattern 3 0 0]),
     (4484, 1, True, [REDUCE sym_list_pattern 2 0 0]),
     (4486, 1, True, [REDUCE sym_map_pattern 2 0 0]),
     (4488, 1, True, [REDUCE sym__strict_formal_parameter_list 3 0 0]),
     (4490, 1, False, [REDUCE sym__strict_formal_parameter_list 3 0 0]),
     (4492, 1, True, [SHIFT 423]), (4494, 1, True, [REDUCE sym_object_pattern 7 0 0]),
     (4496, 1, False, [REDUCE sym_object_pattern 7 0 0]), (4498, 1, True, [SHIFT 855]),
     (4500, 1, True, [SHIFT 2620]), (4502, 1, True, [SHIFT 1396]), (4504, 1, True, [SHIFT 1548]),
     (4506, 1, True, [REDUCE sym_object_pattern 5 0 0]),
     (4508, 1, False, [REDUCE sym_object_pattern 5 0 0]),
     (4510, 1, True, [REDUCE sym_map_pattern 3 0 0]),
     (4512, 1, True, [REDUCE sym_record_pattern 4 0 0]),
     (4514, 1, False, [REDUCE sym_record_pattern 4 0 0]), (4516, 1, True, [SHIFT 1640]),
     (4518, 1, True, [REDUCE sym_map_pattern 4 0 0]),
     (4520, 1, False, [REDUCE sym_map_pattern 4 0 0]),
     (4522, 1, True, [REDUCE sym_list_pattern 4 0 0]),
     (4524, 1, False, [REDUCE sym_list_pattern 4 0 0]),
     (4526, 1, True, [REDUCE sym_object_pattern 6 0 0]),
     (4528, 1, False, [REDUCE sym_object_pattern 6 0 0]), (4530, 1, True, [SHIFT 1049]),
     (4532, 1, True, [REDUCE sym_map_pattern 6 0 0]),
     (4534, 1, False, [REDUCE sym_map_pattern 6 0 0]),
     (4536, 1, True, [REDUCE sym_list_pattern 6 0 0]),
     (4538, 1, False, [REDUCE sym_list_pattern 6 0 0]), (4540, 1, False, [SHIFT 1536]),
     (4542, 1, True, [SHIFT 1836]), (4544, 1, False, [SHIFT 1556]),
     (4546, 1, False, [SHIFT 1011]), (4548, 1, True, [SHIFT 1856]),
     (4550, 1, False, [SHIFT 1065]), (4552, 1, False, [SHIFT 1438]),
     (4554, 1, True, [SHIFT 1815]), (4556, 1, False, [SHIFT 1489]),
     (4558, 1, False, [SHIFT 828]), (4560, 1, True, [SHIFT 1839]), (4562, 1, False, [SHIFT 863]),
     (4564, 1, False, [SHIFT 1341]), (4566, 1, True, [SHIFT 1863]),
     (4568, 1, False, [SHIFT 1360]),
     (4570, 2, False, [REDUCE sym__final_var_or_type 1 0 0, SHIFT 1614]),
     (4573, 2, True, [REDUCE aux_sym__expression_repeat1 2 0 0, SHIFT_REPEAT 2450]),
     (4576, 1, True, [REDUCE sym__primary_pattern 1 0 0]), (4578, 1, True, [SHIFT 577]),
     (4580, 1, True, [SHIFT 2006]), (4582, 1, True, [SHIFT 2070]), (4584, 1, True, [SHIFT 2027]),
     (4586, 1, True, [SHIFT 2622]), (4588, 1, True, [REDUCE sym_constant_pattern 5 0 0]),
     (4590, 1, True, [REDUCE sym_qualified 5 0 0]),
     (4592, 1, True, [REDUCE sym_qualified 3 0 0]), (4594, 1, True, [SHIFT 2080]),
     (4596, 1, True, [REDUCE sym_super_formal_parameter 4 0 0]),
     (4598, 1, False, [REDUCE sym__required 1 0 0]),
     (4600, 1, True, [REDUCE sym__required 1 0 0]),
     (4602, 1, True, [REDUCE sym_constant_pattern 4 0 0]),
     (4604, 1, True, [REDUCE sym_constructor_param 4 0 0]), (4606, 1, True, [SHIFT 398]),
     (4608, 1, True, [SHIFT 2981]), (4610, 1, True, [SHIFT 2081]),
     (4612, 1, True, [REDUCE sym_constant_pattern 6 0 0]),
     (4614, 1, True, [REDUCE sym_variable_pattern 2 0 0]), (4616, 1, True, [SHIFT 2545]),
     (4618, 1, True, [REDUCE sym_constant_pattern 2 0 0]),
     (4620, 1, True, [REDUCE sym__unary_pattern 1 0 0]), (4622, 1, True, [SHIFT 2199]),
     (4624, 1, True, [SHIFT 2197]), (4626, 1, True, [SHIFT 2093]),
     (4628, 1, True, [REDUCE sym_constant_pattern 7 0 0]),
     (4630, 1, True, [REDUCE sym_super_formal_parameter 3 0 0]),
     (4632, 1, True, [REDUCE sym_constructor_param 3 0 0]),
     (4634, 1, True, [REDUCE sym__logical_and_pattern 2 0 0]), (4636, 1, True, [SHIFT 1444]),
     (4638, 1, True, [REDUCE sym_field_initializer 4 0 0]),
     (4640, 1, False, [REDUCE sym_field_initializer 4 0 0]),
     (4642, 1, True, [REDUCE sym_field_initializer 6 0 0]),
     (4644, 1, False, [REDUCE sym_field_initializer 6 0 0]),
     (4646, 2, True, [REDUCE aux_sym__expression_repeat1 2 0 0, SHIFT_REPEAT 2486]),
     (4649, 2, True, [REDUCE sym__function_type_tail 1 0 0, SHIFT 1717]),
     (4652, 2, True, [REDUCE aux_sym__expression_repeat1 2 0 0, SHIFT_REPEAT 2479]),
     (4655, 1, True, [REDUCE aux_sym__logical_and_pattern_repeat1 2 0 0]),
     (4657, 2, True, [REDUCE aux_sym__logical_and_pattern_repeat1 2 0 0, SHIFT_REPEAT 1444]),
     (4660, 3, True, [REDUCE sym__type_not_void_not_function 1 0 0, REDUCE sym__function_type_tail 1 0 0, SHIFT 1717]),
     (4664, 1, True, [REDUCE sym__logical_and_pattern 1 0 0]), (4666, 1, True, [SHIFT 2051]),
     (4668, 1, False, [REDUCE sym__static 1 0 0]), (4670, 1, True, [REDUCE sym__static 1 0 0]),
     (4672, 1, True, [SHIFT 2449]), (4674, 1, False, [SHIFT 2449]), (4676, 1, True, [SHIFT 745]),
     (4678, 1, True, [SHIFT 2864]), (4680, 1, True, [SHIFT 2467]),
     (4682, 2, False, [REDUCE aux_sym__string_literal_double_quotes_multiple_repeat1 2 0 0, SHIFT_REPEAT 2495]),
     (4685, 2, True, [REDUCE aux_sym__string_literal_double_quotes_multiple_repeat1 2 0 0, SHIFT_REPEAT 2495]),
     (4688, 1, True, [REDUCE aux_sym__string_literal_double_quotes_multiple_repeat1 2 0 0]),
     (4690, 2, True, [REDUCE aux_sym__string_literal_double_quotes_multiple_repeat1 2 0 0, SHIFT_REPEAT 2988]),
     (4693, 2, True, [REDUCE aux_sym__string_literal_double_quotes_multiple_repeat1 2 0 0, SHIFT_REPEAT 2453]),
     (4696, 1, True, [REDUCE sym__logical_or_pattern 1 0 0]), (4698, 1, True, [SHIFT 1404]),
     (4700, 1, False, [SHIFT 2495]), (4702, 1, True, [SHIFT 2495]), (4704, 1, True, [SHIFT 732]),
     (4706, 1, True, [SHIFT 2988]), (4708, 1, True, [SHIFT 2453]), (4710, 1, True, [SHIFT 812]),
     (4712, 1, True, [REDUCE aux_sym__logical_or_pattern_repeat1 2 0 0]),
     (4714, 2, True, [REDUCE aux_sym__logical_or_pattern_repeat1 2 0 0, SHIFT_REPEAT 1404]),
     (4717, 1, True, [SHIFT 2548]), (4719, 1, True, [SHIFT 747]),
     (4721, 1, True, [REDUCE sym__outer_pattern 1 0 0]),
     (4723, 1, False, [REDUCE sym__external_builtin 1 0 0]),
     (4725, 1, True, [REDUCE sym__external_builtin 1 0 0]), (4727, 1, True, [SHIFT 1879]),
     (4729, 1, True, [SHIFT 808]), (4731, 1, True, [REDUCE sym__logical_or_pattern 2 0 0]),
     (4733, 2, True, [REDUCE sym_type_parameter 1 0 1, REDUCE sym__type_name 1 0 1]),
     (4736, 2, True, [REDUCE sym__type_name 1 0 1, SHIFT 1566]), (4739, 1, True, [SHIFT 2059])]"

definition ts_parse_actions_15 :: "action_group list" where
  "ts_parse_actions_15 = [
     (4741, 1, True, [SHIFT 631]), (4743, 1, True, [SHIFT 608]), (4745, 1, False, [SHIFT 3464]),
     (4747, 1, True, [SHIFT 525]), (4749, 1, True, [SHIFT 1811]), (4751, 1, True, [SHIFT 803]),
     (4753, 1, True, [SHIFT 809]),
     (4755, 2, True, [REDUCE aux_sym__string_literal_single_quotes_multiple_repeat1 2 0 0, SHIFT_REPEAT 2449]),
     (4758, 2, False, [REDUCE aux_sym__string_literal_single_quotes_multiple_repeat1 2 0 0, SHIFT_REPEAT 2449]),
     (4761, 1, True, [REDUCE aux_sym__string_literal_single_quotes_multiple_repeat1 2 0 0]),
     (4763, 2, True, [REDUCE aux_sym__string_literal_single_quotes_multiple_repeat1 2 0 0, SHIFT_REPEAT 2864]),
     (4766, 2, True, [REDUCE aux_sym__string_literal_single_quotes_multiple_repeat1 2 0 0, SHIFT_REPEAT 2467]),
     (4769, 1, True, [SHIFT 1978]), (4771, 1, True, [SHIFT 1974]), (4773, 1, True, [SHIFT 738]),
     (4775, 1, True, [SHIFT 1829]), (4777, 1, True, [SHIFT 2002]), (4779, 1, True, [SHIFT 1828]),
     (4781, 1, True, [SHIFT 624]), (4783, 1, True, [SHIFT 632]), (4785, 1, True, [SHIFT 1977]),
     (4787, 1, True, [REDUCE sym_method_signature 1 0 0]), (4789, 1, True, [SHIFT 2252]),
     (4791, 1, True, [REDUCE sym_declaration 1 0 0]),
     (4793, 1, False, [REDUCE sym_method_signature 1 0 0]), (4795, 1, False, [SHIFT 3513]),
     (4797, 1, True, [SHIFT 3567]), (4799, 1, True, [REDUCE sym_identifier_list 1 0 0]),
     (4801, 1, False, [REDUCE sym_inferred_type 1 0 0]),
     (4803, 1, True, [REDUCE sym_inferred_type 1 0 0]), (4805, 1, True, [SHIFT 625]),
     (4807, 1, True, [SHIFT 2583]), (4809, 1, True, [SHIFT 2876]), (4811, 1, True, [SHIFT 2585]),
     (4813, 1, True, [SHIFT 2584]), (4815, 1, True, [SHIFT 628]), (4817, 1, True, [SHIFT 2814]),
     (4819, 1, True, [SHIFT 2558]),
     (4821, 2, False, [REDUCE aux_sym_switch_block_repeat1 2 0 0, SHIFT_REPEAT 3464]),
     (4824, 1, True, [REDUCE aux_sym_switch_block_repeat1 2 0 0]),
     (4826, 1, False, [REDUCE aux_sym_switch_block_repeat1 2 0 0]),
     (4828, 2, False, [REDUCE aux_sym_switch_block_repeat1 2 0 0, SHIFT_REPEAT 1434]),
     (4831, 1, False, [SHIFT 3491]), (4833, 1, True, [SHIFT 18]), (4835, 1, True, [SHIFT 247]),
     (4837, 1, False, [SHIFT 2995]), (4839, 1, True, [SHIFT 3022]),
     (4841, 1, True, [SHIFT 2001]), (4843, 1, True, [REDUCE sym_null_assert_pattern 2 0 0]),
     (4845, 1, True, [SHIFT 1973]), (4847, 1, True, [REDUCE sym_null_check_pattern 2 0 0]),
     (4849, 1, True, [REDUCE sym_enum_constant 1 0 3]), (4851, 1, True, [SHIFT 2741]),
     (4853, 2, True, [REDUCE aux_sym__raw_string_literal_single_quotes_multiple_repeat1 2 0 0, SHIFT_REPEAT 2398]),
     (4856, 2, False, [REDUCE aux_sym__raw_string_literal_single_quotes_multiple_repeat1 2 0 0, SHIFT_REPEAT 2398]),
     (4859, 1, True, [REDUCE aux_sym__raw_string_literal_single_quotes_multiple_repeat1 2 0 0]),
     (4861, 2, True, [REDUCE aux_sym__raw_string_literal_single_quotes_multiple_repeat1 2 0 0, SHIFT_REPEAT 2323]),
     (4864, 2, False, [REDUCE aux_sym__raw_string_literal_double_quotes_multiple_repeat1 2 0 0, SHIFT_REPEAT 2402]),
     (4867, 2, True, [REDUCE aux_sym__raw_string_literal_double_quotes_multiple_repeat1 2 0 0, SHIFT_REPEAT 2402]),
     (4870, 1, True, [REDUCE aux_sym__raw_string_literal_double_quotes_multiple_repeat1 2 0 0]),
     (4872, 2, True, [REDUCE aux_sym__raw_string_literal_double_quotes_multiple_repeat1 2 0 0, SHIFT_REPEAT 2307]),
     (4875, 2, True, [REDUCE aux_sym__string_literal_single_quotes_repeat1 2 0 0, SHIFT_REPEAT 2584]),
     (4878, 1, True, [REDUCE aux_sym__string_literal_single_quotes_repeat1 2 0 0]),
     (4880, 2, True, [REDUCE aux_sym__string_literal_single_quotes_repeat1 2 0 0, SHIFT_REPEAT 2814]),
     (4883, 2, True, [REDUCE aux_sym__string_literal_single_quotes_repeat1 2 0 0, SHIFT_REPEAT 2558]),
     (4886, 1, True, [REDUCE sym_enum_constant 2 0 2]), (4888, 1, True, [SHIFT 2999]),
     (4890, 1, True, [REDUCE aux_sym__string_literal_double_quotes_repeat1 2 0 0]),
     (4892, 2, True, [REDUCE aux_sym__string_literal_double_quotes_repeat1 2 0 0, SHIFT_REPEAT 2583]),
     (4895, 2, True, [REDUCE aux_sym__string_literal_double_quotes_repeat1 2 0 0, SHIFT_REPEAT 2876]),
     (4898, 2, True, [REDUCE aux_sym__string_literal_double_quotes_repeat1 2 0 0, SHIFT_REPEAT 2585]),
     (4901, 1, True, [SHIFT 2398]), (4903, 1, False, [SHIFT 2398]),
     (4905, 1, True, [SHIFT 1825]), (4907, 1, True, [SHIFT 2323]),
     (4909, 1, False, [SHIFT 2402]), (4911, 1, True, [SHIFT 2402]),
     (4913, 1, True, [SHIFT 1826]), (4915, 1, True, [SHIFT 2307]), (4917, 1, True, [SHIFT 1831]),
     (4919, 1, True, [SHIFT 1996]), (4921, 1, True, [SHIFT 1832]), (4923, 1, True, [SHIFT 1850]),
     (4925, 1, True, [SHIFT 1853]), (4927, 1, True, [SHIFT 1991]),
     (4929, 2, True, [REDUCE sym__function_type_tail 3 0 0, SHIFT 1717]),
     (4932, 1, True, [REDUCE sym_cast_pattern 3 0 0]), (4934, 1, True, [SHIFT 1980]),
     (4936, 2, True, [REDUCE sym__function_type_tail 2 0 0, SHIFT 1717]),
     (4939, 1, True, [SHIFT 1979]), (4941, 1, True, [SHIFT 635]), (4943, 1, True, [SHIFT 740]),
     (4945, 1, True, [REDUCE sym_initialized_identifier 1 0 0]), (4947, 1, True, [SHIFT 242]),
     (4949, 1, True, [SHIFT 1883]), (4951, 1, True, [SHIFT 1822]), (4953, 1, True, [SHIFT 3525]),
     (4955, 1, True, [SHIFT 3439]), (4957, 1, True, [SHIFT 3479]), (4959, 1, True, [SHIFT 3096]),
     (4961, 1, True, [SHIFT 3103]), (4963, 1, True, [SHIFT 730]),
     (4965, 1, True, [REDUCE sym__relational_pattern 1 0 0]), (4967, 1, True, [SHIFT 733]),
     (4969, 1, True, [SHIFT 731]), (4971, 1, True, [SHIFT 2440]), (4973, 1, True, [SHIFT 1997]),
     (4975, 1, True, [REDUCE sym_configurable_uri 1 0 0]), (4977, 1, True, [SHIFT 3128]),
     (4979, 1, True, [SHIFT 3482]), (4981, 1, True, [SHIFT 1982]), (4983, 1, True, [SHIFT 633]),
     (4985, 1, True, [SHIFT 626]), (4987, 1, True, [SHIFT 811]), (4989, 1, True, [SHIFT 794]),
     (4991, 1, True, [SHIFT 734]), (4993, 1, True, [SHIFT 735]), (4995, 1, True, [SHIFT 798]),
     (4997, 1, True, [SHIFT 796]), (4999, 1, True, [SHIFT 616]), (5001, 1, True, [SHIFT 802]),
     (5003, 1, True, [SHIFT 804]), (5005, 1, True, [SHIFT 814]), (5007, 1, True, [SHIFT 815]),
     (5009, 1, True, [SHIFT 615]), (5011, 1, True, [SHIFT 736]), (5013, 1, True, [SHIFT 746]),
     (5015, 1, False, [REDUCE sym_final_builtin 1 0 0]),
     (5017, 1, True, [REDUCE sym_final_builtin 1 0 0]),
     (5019, 3, True, [REDUCE sym__type_not_void_not_function 2 0 0, REDUCE sym__function_type_tail 2 0 0, SHIFT 1717]),
     (5023, 1, True, [SHIFT 613]), (5025, 1, True, [SHIFT 1975]), (5027, 1, True, [SHIFT 2448]),
     (5029, 1, True, [SHIFT 2434]), (5031, 1, True, [REDUCE sym_initializers 3 0 0]),
     (5033, 1, True, [SHIFT 2188]), (5035, 1, False, [REDUCE sym_initializers 3 0 0]),
     (5037, 1, True, [REDUCE sym_operator_signature 4 0 0]),
     (5039, 1, False, [REDUCE sym_operator_signature 4 0 0]), (5041, 1, True, [SHIFT 1726]),
     (5043, 1, True, [SHIFT 2444]),
     (5045, 1, False, [REDUCE sym_configuration_uri_condition 3 0 0]),
     (5047, 1, True, [REDUCE sym_configuration_uri_condition 3 0 0]),
     (5049, 1, False, [REDUCE sym__covariant 1 0 0]),
     (5051, 1, True, [REDUCE sym__covariant 1 0 0]),
     (5053, 1, False, [REDUCE sym__export 1 0 0]), (5055, 1, True, [REDUCE sym__export 1 0 0]),
     (5057, 1, False, [REDUCE sym__import 1 0 0]), (5059, 1, True, [REDUCE sym__import 1 0 0]),
     (5061, 1, True, [REDUCE sym__function_formal_parameter 2 0 0])]"

definition ts_parse_actions_16 :: "action_group list" where
  "ts_parse_actions_16 = [
     (5063, 1, True, [REDUCE sym_function_signature 2 0 3]),
     (5065, 1, False, [REDUCE sym_function_signature 2 0 3]),
     (5067, 1, True, [REDUCE sym__declared_identifier 2 0 2]),
     (5069, 1, True, [REDUCE sym_record_type_field 2 0 0]),
     (5071, 2, True, [REDUCE aux_sym__raw_string_literal_single_quotes_repeat1 2 0 0, SHIFT_REPEAT 2439]),
     (5074, 1, True, [REDUCE aux_sym__raw_string_literal_single_quotes_repeat1 2 0 0]),
     (5076, 2, True, [REDUCE aux_sym__raw_string_literal_single_quotes_repeat1 2 0 0, SHIFT_REPEAT 2425]),
     (5079, 1, True, [REDUCE aux_sym__raw_string_literal_double_quotes_repeat1 2 0 0]),
     (5081, 2, True, [REDUCE aux_sym__raw_string_literal_double_quotes_repeat1 2 0 0, SHIFT_REPEAT 2448]),
     (5084, 2, True, [REDUCE aux_sym__raw_string_literal_double_quotes_repeat1 2 0 0, SHIFT_REPEAT 2434]),
     (5087, 2, True, [REDUCE sym__declared_identifier 2 0 2, REDUCE sym__declared_identifier 3 0 9]),
     (5090, 1, True, [REDUCE sym__declared_identifier 3 0 9]),
     (5092, 1, True, [REDUCE sym_record_type_field 3 0 0]),
     (5094, 1, True, [REDUCE sym_operator_signature 3 0 0]),
     (5096, 1, False, [REDUCE sym_operator_signature 3 0 0]), (5098, 1, True, [SHIFT 2200]),
     (5100, 1, True, [SHIFT 603]), (5102, 1, True, [SHIFT 590]),
     (5104, 1, True, [REDUCE sym__function_formal_parameter 3 0 0]),
     (5106, 1, True, [REDUCE sym_function_signature 3 0 2]),
     (5108, 1, False, [REDUCE sym_function_signature 3 0 2]), (5110, 1, True, [SHIFT 634]),
     (5112, 1, True, [REDUCE aux_sym_initializers_repeat1 2 0 0]),
     (5114, 2, True, [REDUCE aux_sym_initializers_repeat1 2 0 0, SHIFT_REPEAT 2188]),
     (5117, 1, False, [REDUCE aux_sym_initializers_repeat1 2 0 0]),
     (5119, 1, True, [SHIFT 1999]), (5121, 1, True, [SHIFT 2439]), (5123, 1, True, [SHIFT 1827]),
     (5125, 1, True, [SHIFT 2425]),
     (5127, 2, True, [REDUCE sym__formal_parameter_part 1 0 0, REDUCE sym_constructor_signature 2 0 25]),
     (5130, 1, True, [REDUCE sym_constructor_signature 2 0 25]),
     (5132, 2, False, [REDUCE sym__formal_parameter_part 1 0 0, REDUCE sym_constructor_signature 2 0 25]),
     (5135, 1, True, [SHIFT 1812]), (5137, 1, True, [REDUCE sym_typed_identifier 2 0 0]),
     (5139, 1, True, [SHIFT 636]), (5141, 1, True, [SHIFT 1998]),
     (5143, 1, True, [REDUCE sym_getter_signature 3 0 9]),
     (5145, 1, False, [REDUCE sym_getter_signature 3 0 9]),
     (5147, 1, True, [REDUCE sym_initializers 2 0 0]),
     (5149, 1, False, [REDUCE sym_initializers 2 0 0]), (5151, 1, True, [SHIFT 1860]),
     (5153, 1, True, [REDUCE sym_function_signature 3 0 10]),
     (5155, 1, False, [REDUCE sym_function_signature 3 0 10]), (5157, 1, True, [SHIFT 1868]),
     (5159, 1, False, [REDUCE aux_sym__raw_string_literal_double_quotes_multiple_repeat1 1 0 0]),
     (5161, 1, False, [SHIFT 2362]),
     (5163, 1, True, [REDUCE aux_sym__raw_string_literal_double_quotes_multiple_repeat1 1 0 0]),
     (5165, 1, False, [SHIFT 3550]), (5167, 1, False, [SHIFT 3545]),
     (5169, 1, True, [SHIFT 2054]),
     (5171, 1, True, [REDUCE sym__function_formal_parameter 4 0 0]),
     (5173, 1, True, [REDUCE sym_function_signature 2 0 4]),
     (5175, 1, False, [REDUCE sym_function_signature 2 0 4]), (5177, 1, True, [SHIFT 2040]),
     (5179, 1, True, [SHIFT 810]), (5181, 1, True, [SHIFT 813]), (5183, 1, True, [SHIFT 750]),
     (5185, 1, True, [SHIFT 743]), (5187, 1, True, [SHIFT 807]), (5189, 1, True, [SHIFT 806]),
     (5191, 1, True, [SHIFT 3485]), (5193, 1, True, [SHIFT 1610]), (5195, 1, True, [SHIFT 3125]),
     (5197, 2, True, [REDUCE sym__declared_identifier 3 0 9, REDUCE sym__declared_identifier 4 0 42]),
     (5200, 1, True, [REDUCE sym__declared_identifier 4 0 42]), (5202, 1, True, [SHIFT 619]),
     (5204, 1, False, [REDUCE aux_sym__raw_string_literal_single_quotes_multiple_repeat1 1 0 0]),
     (5206, 1, False, [SHIFT 2408]),
     (5208, 1, True, [REDUCE aux_sym__raw_string_literal_single_quotes_multiple_repeat1 1 0 0]),
     (5210, 1, True, [SHIFT 739]), (5212, 1, True, [REDUCE sym_setter_signature 3 0 2]),
     (5214, 1, False, [REDUCE sym_setter_signature 3 0 2]), (5216, 1, True, [SHIFT 2003]),
     (5218, 1, True, [SHIFT 2005]), (5220, 1, True, [SHIFT 737]),
     (5222, 1, True, [REDUCE sym_getter_signature 2 0 2]),
     (5224, 1, False, [REDUCE sym_getter_signature 2 0 2]), (5226, 1, True, [SHIFT 617]),
     (5228, 1, True, [REDUCE sym_setter_signature 4 0 9]),
     (5230, 1, False, [REDUCE sym_setter_signature 4 0 9]),
     (5232, 1, True, [REDUCE sym_assertion_arguments 3 0 0]),
     (5234, 1, False, [REDUCE sym_assertion_arguments 3 0 0]),
     (5236, 1, True, [REDUCE sym_configurable_uri 2 0 0]),
     (5238, 1, True, [REDUCE sym_constructor_signature 4 0 56]),
     (5240, 1, False, [REDUCE sym_constructor_signature 4 0 56]), (5242, 1, True, [SHIFT 20]),
     (5244, 1, True, [SHIFT 237]), (5246, 1, False, [SHIFT 2769]), (5248, 1, True, [SHIFT 3202]),
     (5250, 1, True, [SHIFT 15]), (5252, 1, True, [SHIFT 201]), (5254, 1, False, [SHIFT 2926]),
     (5256, 1, True, [SHIFT 3084]), (5258, 1, True, [SHIFT 2462]), (5260, 1, True, [SHIFT 2676]),
     (5262, 1, True, [REDUCE sym_assertion_arguments 6 0 0]),
     (5264, 1, False, [REDUCE sym_assertion_arguments 6 0 0]),
     (5266, 1, True, [REDUCE sym_initializer_list_entry 2 0 0]),
     (5268, 1, False, [REDUCE sym_initializer_list_entry 2 0 0]),
     (5270, 1, True, [REDUCE sym_factory_constructor_signature 4 0 0]),
     (5272, 1, False, [SHIFT 2062]),
     (5274, 1, False, [REDUCE sym_factory_constructor_signature 4 0 0]),
     (5276, 1, True, [REDUCE sym_initializer_list_entry 1 0 0]),
     (5278, 1, False, [REDUCE sym_initializer_list_entry 1 0 0]), (5280, 1, False, [SHIFT 2260]),
     (5282, 1, True, [SHIFT 14]), (5284, 1, True, [SHIFT 204]), (5286, 1, False, [SHIFT 2818]),
     (5288, 1, True, [SHIFT 3205]), (5290, 1, True, [REDUCE sym_initializer_list_entry 4 0 0]),
     (5292, 1, False, [REDUCE sym_initializer_list_entry 4 0 0]),
     (5294, 1, True, [REDUCE aux_sym_configurable_uri_repeat1 2 0 0]),
     (5296, 2, True, [REDUCE aux_sym_configurable_uri_repeat1 2 0 0, SHIFT_REPEAT 3128]),
     (5299, 1, False, [REDUCE sym__sub_string_test 2 0 0]),
     (5301, 1, True, [REDUCE sym__sub_string_test 2 0 0]), (5303, 1, True, [SHIFT 2302]),
     (5305, 1, True, [REDUCE sym__pattern 1 0 0]),
     (5307, 1, True, [REDUCE sym_assertion_arguments 5 0 0]),
     (5309, 1, False, [REDUCE sym_assertion_arguments 5 0 0]), (5311, 1, True, [SHIFT 2494]),
     (5313, 1, True, [SHIFT 2474]), (5315, 1, True, [REDUCE sym_assertion_arguments 4 0 0]),
     (5317, 1, False, [REDUCE sym_assertion_arguments 4 0 0]), (5319, 1, True, [SHIFT 2473]),
     (5321, 1, True, [SHIFT 2840]),
     (5323, 1, True, [REDUCE sym_factory_constructor_signature 3 0 0]),
     (5325, 1, False, [SHIFT 2068]),
     (5327, 1, False, [REDUCE sym_factory_constructor_signature 3 0 0]),
     (5329, 1, True, [SHIFT 2329]), (5331, 1, True, [SHIFT 1908]), (5333, 1, True, [SHIFT 262]),
     (5335, 1, False, [REDUCE aux_sym__raw_string_literal_single_quotes_repeat1 1 0 0]),
     (5337, 1, False, [SHIFT 2497]),
     (5339, 1, True, [REDUCE aux_sym__raw_string_literal_single_quotes_repeat1 1 0 0]),
     (5341, 1, True, [SHIFT 268]), (5343, 1, False, [SHIFT 2881]), (5345, 1, True, [SHIFT 3142]),
     (5347, 1, True, [REDUCE sym_assertion 2 0 0]),
     (5349, 1, False, [REDUCE sym_assertion 2 0 0]),
     (5351, 1, False, [REDUCE aux_sym__raw_string_literal_double_quotes_repeat1 1 0 0]),
     (5353, 1, False, [SHIFT 2517]),
     (5355, 1, True, [REDUCE aux_sym__raw_string_literal_double_quotes_repeat1 1 0 0]),
     (5357, 2, False, [REDUCE sym__var_or_type 1 0 0, SHIFT 2442]),
     (5360, 1, True, [REDUCE sym_template_substitution 4 0 0]),
     (5362, 1, False, [REDUCE sym_template_substitution 4 0 0]),
     (5364, 1, True, [REDUCE sym_type_parameter 1 0 1]),
     (5366, 1, True, [REDUCE sym_operator_signature 5 0 0]),
     (5368, 1, False, [REDUCE sym_operator_signature 5 0 0]),
     (5370, 1, True, [REDUCE aux_sym__string_literal_single_quotes_multiple_repeat1 1 0 0]),
     (5372, 1, False, [REDUCE aux_sym__string_literal_single_quotes_multiple_repeat1 1 0 0])]"

definition ts_parse_actions_17 :: "action_group list" where
  "ts_parse_actions_17 = [
     (5374, 1, True, [SHIFT 1126]), (5376, 1, True, [SHIFT 3429]), (5378, 1, True, [SHIFT 2036]),
     (5380, 1, False, [REDUCE sym_escape_sequence 1 0 0]),
     (5382, 1, True, [REDUCE sym_escape_sequence 1 0 0]),
     (5384, 1, False, [REDUCE sym_is_operator 1 0 0]),
     (5386, 1, True, [REDUCE sym_is_operator 1 0 0]),
     (5388, 1, True, [REDUCE sym_type_parameter 1 0 0]), (5390, 1, True, [REDUCE sym_uri 1 0 0]),
     (5392, 1, True, [REDUCE sym__native 2 0 0]), (5394, 1, False, [REDUCE sym__native 2 0 0]),
     (5396, 1, True, [REDUCE sym_setter_signature 4 0 2]),
     (5398, 1, False, [REDUCE sym_setter_signature 4 0 2]),
     (5400, 1, True, [REDUCE sym_function_signature 3 0 3]),
     (5402, 1, False, [REDUCE sym_function_signature 3 0 3]),
     (5404, 1, True, [REDUCE sym__normal_formal_parameter 1 0 6]),
     (5406, 1, True, [REDUCE sym__normal_formal_parameter 1 0 0]),
     (5408, 1, True, [REDUCE sym_formal_parameter 1 0 6]),
     (5410, 1, True, [REDUCE sym__simple_formal_parameter 1 0 6]), (5412, 1, True, [SHIFT 2024]),
     (5414, 1, False, [SHIFT 3462]),
     (5416, 1, True, [REDUCE sym__normal_formal_parameter 2 0 14]),
     (5418, 1, True, [REDUCE sym__normal_formal_parameter 2 0 0]),
     (5420, 1, False, [REDUCE sym__late_builtin 1 0 0]),
     (5422, 1, True, [REDUCE sym__late_builtin 1 0 0]),
     (5424, 1, True, [REDUCE sym_abstract 1 0 0]),
     (5426, 1, True, [REDUCE sym_function_signature 3 0 4]),
     (5428, 1, False, [REDUCE sym_function_signature 3 0 4]),
     (5430, 1, True, [REDUCE sym_getter_signature 3 0 2]),
     (5432, 1, False, [REDUCE sym_getter_signature 3 0 2]),
     (5434, 1, False, [REDUCE aux_sym__string_literal_double_quotes_multiple_repeat1 1 0 0]),
     (5436, 1, True, [REDUCE aux_sym__string_literal_double_quotes_multiple_repeat1 1 0 0]),
     (5438, 1, False, [REDUCE sym_template_substitution 2 0 0]),
     (5440, 1, True, [REDUCE sym_template_substitution 2 0 0]), (5442, 1, True, [SHIFT 639]),
     (5444, 1, True, [SHIFT 211]), (5446, 1, True, [REDUCE sym__element 1 0 0]),
     (5448, 1, True, [SHIFT 263]),
     (5450, 1, True, [REDUCE aux_sym_factory_constructor_signature_repeat1 2 0 0]),
     (5452, 2, True, [REDUCE aux_sym_factory_constructor_signature_repeat1 2 0 0, SHIFT_REPEAT 3412]),
     (5455, 1, True, [REDUCE sym_setter_signature 5 0 9]),
     (5457, 1, False, [REDUCE sym_setter_signature 5 0 9]),
     (5459, 1, True, [REDUCE sym_type_parameter 2 0 0]),
     (5461, 1, True, [REDUCE sym_type_parameter 2 0 7]), (5463, 1, True, [SHIFT 587]),
     (5465, 1, True, [SHIFT 217]), (5467, 1, False, [REDUCE sym__external_and_static 2 0 0]),
     (5469, 1, True, [REDUCE sym__external_and_static 2 0 0]),
     (5471, 1, True, [REDUCE sym_function_signature 4 0 10]),
     (5473, 1, False, [REDUCE sym_function_signature 4 0 10]),
     (5475, 1, True, [REDUCE sym_getter_signature 4 0 9]),
     (5477, 1, False, [REDUCE sym_getter_signature 4 0 9]),
     (5479, 1, True, [REDUCE sym_method_signature 2 0 0]),
     (5481, 1, True, [REDUCE sym_declaration 2 0 0]),
     (5483, 1, False, [REDUCE sym_method_signature 2 0 0]),
     (5485, 1, True, [REDUCE sym__function_formal_parameter 5 0 0]),
     (5487, 1, True, [REDUCE sym_super_formal_parameter 5 0 0]),
     (5489, 1, True, [REDUCE sym_constructor_param 5 0 0]),
     (5491, 1, True, [REDUCE sym_function_signature 4 0 2]),
     (5493, 1, False, [REDUCE sym_function_signature 4 0 2]),
     (5495, 2, False, [REDUCE aux_sym_switch_statement_case_repeat1 2 0 0, SHIFT_REPEAT 3464]),
     (5498, 1, False, [REDUCE aux_sym_switch_statement_case_repeat1 2 0 0]),
     (5500, 1, True, [REDUCE sym__identifier_list 2 0 0]),
     (5502, 1, True, [REDUCE sym__identifier_list 1 0 0]),
     (5504, 1, True, [REDUCE aux_sym_library_export_repeat1 2 0 0]),
     (5506, 2, True, [REDUCE aux_sym_library_export_repeat1 2 0 0, SHIFT_REPEAT 3125]),
     (5509, 1, True, [SHIFT 225]), (5511, 1, True, [REDUCE sym__for_loop_parts 3 0 65]),
     (5513, 1, True, [REDUCE sym_configuration_uri 3 0 0]), (5515, 1, True, [SHIFT 3412]),
     (5517, 1, False, [SHIFT 2282]),
     (5519, 1, True, [REDUCE aux_sym__type_not_void_list_repeat1 2 0 0]),
     (5521, 2, True, [REDUCE aux_sym__type_not_void_list_repeat1 2 0 0, SHIFT_REPEAT 2061]),
     (5524, 1, True, [REDUCE aux_sym_configurable_uri_repeat1 1 0 0]),
     (5526, 1, False, [SHIFT 2018]), (5528, 1, False, [SHIFT 953]),
     (5530, 1, False, [SHIFT 2122]), (5532, 1, True, [REDUCE sym__for_loop_parts 2 0 55]),
     (5534, 1, False, [SHIFT 3439]),
     (5536, 3, False, [REDUCE sym__var_or_type 1 0 0, REDUCE sym__final_var_or_type 1 0 0, SHIFT 2279]),
     (5540, 1, True, [REDUCE sym_record_type_field 1 0 0]),
     (5542, 1, True, [REDUCE sym__type_not_void_list 1 0 0]), (5544, 1, True, [SHIFT 2061]),
     (5546, 1, True, [REDUCE sym__type_not_void_list 2 0 0]), (5548, 1, False, [SHIFT 2278]),
     (5550, 1, True, [REDUCE sym_dotted_identifier_list 2 0 0]), (5552, 1, True, [SHIFT 3233]),
     (5554, 1, True, [SHIFT 234]),
     (5556, 1, True, [REDUCE sym_initialized_variable_definition 1 0 6]),
     (5558, 1, True, [SHIFT 231]), (5560, 1, True, [SHIFT 62]), (5562, 1, False, [SHIFT 2471]),
     (5564, 2, True, [REDUCE aux_sym_inferred_parameters_repeat1 2 0 0, SHIFT_REPEAT 3567]),
     (5567, 1, True, [REDUCE aux_sym_inferred_parameters_repeat1 2 0 0]),
     (5569, 1, True, [SHIFT 2271]), (5571, 1, True, [SHIFT 2274]),
     (5573, 1, True, [REDUCE sym_dotted_identifier_list 1 0 0]),
     (5575, 2, False, [REDUCE sym__var_or_type 1 0 0, SHIFT 2284]),
     (5578, 1, True, [REDUCE aux_sym__string_literal_double_quotes_repeat1 1 0 0]),
     (5580, 1, True, [REDUCE aux_sym__string_literal_single_quotes_repeat1 1 0 0]),
     (5582, 1, True, [REDUCE sym_if_element 7 0 85]),
     (5584, 1, True, [REDUCE sym_if_element 7 0 86]), (5586, 1, True, [SHIFT 158]),
     (5588, 1, True, [SHIFT 3527]), (5590, 1, True, [REDUCE sym_superclass 2 0 0]),
     (5592, 1, True, [SHIFT 1625]), (5594, 1, True, [REDUCE sym_spread_element 3 0 0]),
     (5596, 1, True, [REDUCE sym_if_element 9 0 96]),
     (5598, 1, True, [REDUCE sym_for_element 3 0 35]),
     (5600, 1, True, [REDUCE sym_spread_element 2 0 0]), (5602, 1, False, [SHIFT 2078]),
     (5604, 1, True, [SHIFT 2065]), (5606, 1, True, [REDUCE aux_sym_list_literal_repeat1 2 0 0]),
     (5608, 2, True, [REDUCE aux_sym_list_literal_repeat1 2 0 0, SHIFT_REPEAT 159]),
     (5611, 1, True, [REDUCE sym_pair 3 0 50]), (5613, 1, True, [SHIFT 2194]),
     (5615, 1, True, [SHIFT 166]), (5617, 1, True, [REDUCE sym_mixin_application 2 0 0]),
     (5619, 1, True, [REDUCE sym_for_element 4 0 51]),
     (5621, 1, False, [REDUCE sym__final_or_const 1 0 0]),
     (5623, 1, True, [REDUCE sym__final_or_const 1 0 0]), (5625, 1, False, [SHIFT 2621]),
     (5627, 1, False, [SHIFT 2895]), (5629, 1, False, [SHIFT 2057]),
     (5631, 1, False, [SHIFT 2293]), (5633, 1, True, [SHIFT 2636]),
     (5635, 1, False, [REDUCE sym__implements 1 0 0]),
     (5637, 1, True, [REDUCE sym__implements 1 0 0]), (5639, 1, True, [SHIFT 218]),
     (5641, 2, True, [REDUCE sym__normal_formal_parameter 1 0 6, REDUCE sym__normal_formal_parameter 2 0 14]),
     (5644, 2, True, [REDUCE sym__normal_formal_parameter 1 0 0, REDUCE sym__normal_formal_parameter 2 0 0]),
     (5647, 1, True, [REDUCE sym__default_named_parameter 2 0 0]), (5649, 1, True, [SHIFT 272]),
     (5651, 1, False, [REDUCE sym__typedef 1 0 0]), (5653, 1, True, [REDUCE sym__typedef 1 0 0]),
     (5655, 2, True, [REDUCE aux_sym_parameter_type_list_repeat1 2 0 0, SHIFT_REPEAT 1898]),
     (5658, 1, True, [REDUCE aux_sym_parameter_type_list_repeat1 2 0 0]),
     (5660, 1, True, [SHIFT 1790]), (5662, 1, True, [SHIFT 2287]), (5664, 1, True, [SHIFT 601]),
     (5666, 1, True, [REDUCE sym_type_parameter 3 0 0]),
     (5668, 1, True, [REDUCE sym_type_parameter 3 0 7]), (5670, 1, False, [SHIFT 2717]),
     (5672, 1, False, [SHIFT 2092]), (5674, 1, True, [SHIFT 2590]),
     (5676, 1, True, [REDUCE sym_normal_parameter_type 1 0 0]),
     (5678, 1, False, [REDUCE sym_is_operator 2 0 0]),
     (5680, 1, True, [REDUCE sym_is_operator 2 0 0]), (5682, 1, True, [SHIFT 2286]),
     (5684, 1, False, [SHIFT 3068])]"

definition ts_parse_actions_18 :: "action_group list" where
  "ts_parse_actions_18 = [
     (5686, 1, True, [REDUCE sym_if_element 5 0 62]), (5688, 1, True, [SHIFT 151]),
     (5690, 1, False, [SHIFT 3189]), (5692, 1, True, [REDUCE sym_type_parameter 2 0 1]),
     (5694, 1, True, [REDUCE sym_normal_parameter_type 2 0 0]), (5696, 1, True, [SHIFT 21]),
     (5698, 1, True, [SHIFT 3152]), (5700, 1, True, [REDUCE sym__default_named_parameter 1 0 0]),
     (5702, 1, True, [SHIFT 245]), (5704, 1, True, [REDUCE aux_sym_enum_body_repeat1 2 0 0]),
     (5706, 2, True, [REDUCE aux_sym_enum_body_repeat1 2 0 0, SHIFT_REPEAT 2527]),
     (5709, 1, False, [REDUCE sym_as_operator 1 0 0]),
     (5711, 1, True, [REDUCE sym_as_operator 1 0 0]),
     (5713, 1, True, [REDUCE sym__default_named_parameter 3 0 0]), (5715, 1, True, [SHIFT 260]),
     (5717, 1, True, [SHIFT 3082]),
     (5719, 1, False, [REDUCE aux_sym_switch_block_repeat1 1 0 0]),
     (5721, 1, True, [REDUCE aux_sym_switch_block_repeat1 1 0 0]),
     (5723, 1, True, [REDUCE sym__guarded_pattern 1 0 0]), (5725, 1, True, [SHIFT 246]),
     (5727, 1, True, [SHIFT 1881]), (5729, 1, True, [SHIFT 1534]), (5731, 1, True, [SHIFT 3404]),
     (5733, 1, True, [SHIFT 1845]),
     (5735, 1, True, [REDUCE sym_initialized_variable_definition 2 0 6]),
     (5737, 1, True, [SHIFT 132]), (5739, 1, True, [REDUCE sym__for_loop_parts 3 0 70]),
     (5741, 1, True, [SHIFT 1855]), (5743, 1, True, [REDUCE sym__for_loop_parts 3 0 71]),
     (5745, 1, True, [SHIFT 988]), (5747, 1, True, [SHIFT 392]),
     (5749, 2, True, [REDUCE aux_sym_record_pattern_repeat1 2 0 0, SHIFT_REPEAT 405]),
     (5752, 1, True, [REDUCE aux_sym_record_pattern_repeat1 2 0 0]),
     (5754, 1, True, [SHIFT 2075]), (5756, 1, True, [SHIFT 1547]),
     (5758, 1, True, [REDUCE sym_initialized_identifier_list 2 0 0]),
     (5760, 1, True, [SHIFT 1550]), (5762, 1, True, [SHIFT 391]),
     (5764, 1, True, [REDUCE sym__for_loop_parts 3 0 68]), (5766, 1, True, [SHIFT 1031]),
     (5768, 3, False, [REDUCE sym__var_or_type 1 0 0, REDUCE sym__final_var_or_type 1 0 0, SHIFT 2472]),
     (5772, 1, False, [REDUCE aux_sym_switch_statement_case_repeat1 1 0 0]),
     (5774, 1, True, [SHIFT 1041]), (5776, 1, True, [SHIFT 3133]),
     (5778, 2, True, [REDUCE aux_sym__record_literal_no_const_repeat1 2 0 0, SHIFT_REPEAT 186]),
     (5781, 1, True, [REDUCE aux_sym__record_literal_no_const_repeat1 2 0 0]),
     (5783, 1, True, [SHIFT 1691]), (5785, 1, True, [REDUCE sym_enum_constant 5 0 3]),
     (5787, 1, True, [SHIFT 1634]), (5789, 1, True, [SHIFT 3129]), (5791, 1, True, [SHIFT 3019]),
     (5793, 1, True, [SHIFT 2266]), (5795, 1, True, [SHIFT 1053]), (5797, 1, True, [SHIFT 1699]),
     (5799, 1, True, [SHIFT 1076]), (5801, 1, True, [SHIFT 1622]),
     (5803, 1, True, [REDUCE sym_enum_constant 5 0 2]), (5805, 1, True, [SHIFT 2975]),
     (5807, 1, True, [SHIFT 1048]), (5809, 1, True, [SHIFT 1846]),
     (5811, 2, True, [REDUCE aux_sym_initialized_identifier_list_repeat1 2 0 0, SHIFT_REPEAT 3233]),
     (5814, 1, True, [REDUCE aux_sym_initialized_identifier_list_repeat1 2 0 0]),
     (5816, 1, True, [SHIFT 1849]), (5818, 1, True, [SHIFT 1075]), (5820, 1, True, [SHIFT 1646]),
     (5822, 1, True, [SHIFT 2580]),
     (5824, 2, True, [REDUCE aux_sym__for_loop_parts_repeat1 2 0 66, SHIFT_REPEAT 218]),
     (5827, 1, True, [REDUCE aux_sym__for_loop_parts_repeat1 2 0 66]),
     (5829, 1, True, [REDUCE sym_combinator 2 0 0]), (5831, 1, True, [SHIFT 3282]),
     (5833, 1, True, [REDUCE sym_identifier_list 2 0 0]), (5835, 1, True, [SHIFT 1707]),
     (5837, 1, True, [SHIFT 2071]), (5839, 1, True, [SHIFT 1859]), (5841, 1, True, [SHIFT 3566]),
     (5843, 1, True, [SHIFT 1800]), (5845, 1, True, [SHIFT 1400]), (5847, 1, True, [SHIFT 1866]),
     (5849, 1, True, [SHIFT 3564]), (5851, 1, True, [SHIFT 1636]), (5853, 1, True, [SHIFT 1861]),
     (5855, 1, True, [SHIFT 2221]), (5857, 1, True, [SHIFT 1705]), (5859, 1, True, [SHIFT 1458]),
     (5861, 1, True, [SHIFT 1698]), (5863, 1, True, [SHIFT 1531]), (5865, 1, True, [SHIFT 1407]),
     (5867, 1, True, [REDUCE aux_sym_library_export_repeat1 1 0 0]),
     (5869, 1, True, [REDUCE aux_sym_record_type_repeat2 2 0 0]),
     (5871, 2, True, [REDUCE aux_sym_record_type_repeat2 2 0 0, SHIFT_REPEAT 1901]),
     (5874, 1, True, [SHIFT 1842]), (5876, 1, True, [SHIFT 170]), (5878, 1, True, [SHIFT 1486]),
     (5880, 1, True, [SHIFT 1867]), (5882, 1, True, [SHIFT 126]), (5884, 1, False, [SHIFT 3033]),
     (5886, 1, True, [REDUCE sym_enum_constant 2 0 3]), (5888, 1, True, [SHIFT 2990]),
     (5890, 1, False, [SHIFT 3066]), (5892, 1, True, [SHIFT 396]), (5894, 1, True, [SHIFT 124]),
     (5896, 1, True, [SHIFT 79]), (5898, 1, True, [SHIFT 118]),
     (5900, 2, True, [REDUCE sym__normal_formal_parameters 1 0 0, SHIFT 931]),
     (5903, 1, True, [REDUCE sym__normal_formal_parameters 1 0 0]),
     (5905, 1, True, [SHIFT 1837]),
     (5907, 2, True, [REDUCE aux_sym_list_pattern_repeat1 2 0 0, SHIFT_REPEAT 394]),
     (5910, 1, True, [REDUCE aux_sym_list_pattern_repeat1 2 0 0]), (5912, 1, True, [SHIFT 384]),
     (5914, 1, True, [SHIFT 2026]),
     (5916, 2, False, [REDUCE sym__var_or_type 1 0 0, SHIFT 2472]), (5919, 1, True, [SHIFT 131]),
     (5921, 1, True, [REDUCE aux_sym_switch_expression_repeat1 2 0 0]),
     (5923, 2, True, [REDUCE aux_sym_switch_expression_repeat1 2 0 0, SHIFT_REPEAT 406]),
     (5926, 1, True, [SHIFT 1689]), (5928, 1, True, [SHIFT 1681]),
     (5930, 1, True, [REDUCE sym__guarded_pattern 3 0 0]),
     (5932, 2, True, [REDUCE aux_sym_type_parameters_repeat1 2 0 0, SHIFT_REPEAT 2266]),
     (5935, 1, True, [REDUCE aux_sym_type_parameters_repeat1 2 0 0]),
     (5937, 1, True, [SHIFT 3521]), (5939, 1, True, [SHIFT 1871]),
     (5941, 1, True, [REDUCE sym__for_loop_parts 4 0 75]),
     (5943, 1, True, [REDUCE sym__for_loop_parts 4 0 76]), (5945, 1, True, [SHIFT 3261]),
     (5947, 1, True, [REDUCE sym_static_final_declaration_list 2 0 0]),
     (5949, 1, True, [SHIFT 128]), (5951, 1, True, [SHIFT 1872]), (5953, 1, True, [SHIFT 267]),
     (5955, 1, True, [SHIFT 380]), (5957, 1, True, [REDUCE sym__for_loop_parts 4 0 79]),
     (5959, 1, True, [SHIFT 764]), (5961, 1, True, [SHIFT 135]), (5963, 1, True, [SHIFT 133]),
     (5965, 1, True, [REDUCE sym__for_loop_parts 4 0 80]), (5967, 1, True, [SHIFT 831]),
     (5969, 1, True, [SHIFT 1515]), (5971, 1, True, [SHIFT 2510]), (5973, 1, True, [SHIFT 395]),
     (5975, 1, True, [REDUCE sym__for_loop_parts 4 0 81]), (5977, 1, True, [SHIFT 127]),
     (5979, 1, True, [REDUCE sym__set 1 0 0]), (5981, 1, True, [SHIFT 122]),
     (5983, 1, True, [SHIFT 106]),
     (5985, 2, True, [REDUCE aux_sym__normal_formal_parameters_repeat1 2 0 0, SHIFT_REPEAT 931]),
     (5988, 1, True, [REDUCE aux_sym__normal_formal_parameters_repeat1 2 0 0]),
     (5990, 1, False, [REDUCE sym__final_const_var_or_type 3 0 0]), (5992, 1, True, [SHIFT 826]),
     (5994, 1, True, [SHIFT 3299]), (5996, 1, True, [SHIFT 1169]), (5998, 1, True, [SHIFT 393])]"

definition ts_parse_actions_19 :: "action_group list" where
  "ts_parse_actions_19 = [
     (6000, 2, True, [REDUCE aux_sym__for_loop_parts_repeat2 2 0 82, SHIFT_REPEAT 225]),
     (6003, 1, True, [REDUCE aux_sym__for_loop_parts_repeat2 2 0 82]),
     (6005, 1, True, [SHIFT 1852]), (6007, 1, True, [SHIFT 1437]),
     (6009, 1, True, [REDUCE sym__for_loop_parts 4 0 83]), (6011, 1, True, [SHIFT 88]),
     (6013, 1, True, [SHIFT 1241]), (6015, 1, True, [SHIFT 175]), (6017, 1, True, [SHIFT 1873]),
     (6019, 1, True, [SHIFT 1238]), (6021, 1, True, [SHIFT 87]), (6023, 1, True, [SHIFT 117]),
     (6025, 1, True, [SHIFT 110]), (6027, 1, True, [SHIFT 3516]), (6029, 1, True, [SHIFT 1841]),
     (6031, 1, True, [SHIFT 180]), (6033, 1, True, [SHIFT 1150]),
     (6035, 1, True, [REDUCE aux_sym_map_pattern_repeat1 2 0 0]),
     (6037, 2, True, [REDUCE aux_sym_map_pattern_repeat1 2 0 0, SHIFT_REPEAT 185]),
     (6040, 1, True, [SHIFT 1821]), (6042, 1, True, [SHIFT 397]), (6044, 1, True, [SHIFT 1688]),
     (6046, 1, True, [SHIFT 1234]), (6048, 1, False, [SHIFT 259]),
     (6050, 1, False, [SHIFT 2531]), (6052, 1, False, [SHIFT 2533]),
     (6054, 1, True, [SHIFT 1813]), (6056, 1, True, [SHIFT 103]), (6058, 1, True, [SHIFT 203]),
     (6060, 1, True, [SHIFT 183]), (6062, 1, True, [REDUCE sym_enum_constant 6 0 2]),
     (6064, 1, True, [SHIFT 1875]), (6066, 1, True, [SHIFT 3112]), (6068, 1, True, [SHIFT 1356]),
     (6070, 1, True, [SHIFT 381]), (6072, 1, True, [SHIFT 3390]), (6074, 1, True, [SHIFT 1878]),
     (6076, 1, True, [SHIFT 1823]), (6078, 1, True, [SHIFT 1687]), (6080, 1, True, [SHIFT 81]),
     (6082, 1, True, [SHIFT 1882]), (6084, 1, True, [SHIFT 82]), (6086, 1, True, [SHIFT 882]),
     (6088, 1, True, [SHIFT 1693]), (6090, 1, True, [SHIFT 896]), (6092, 1, True, [SHIFT 1242]),
     (6094, 1, True, [REDUCE sym__get 1 0 0]), (6096, 1, True, [SHIFT 145]),
     (6098, 1, True, [SHIFT 2115]), (6100, 1, True, [SHIFT 144]), (6102, 1, True, [SHIFT 134]),
     (6104, 1, True, [SHIFT 865]), (6106, 1, True, [SHIFT 1686]), (6108, 1, True, [SHIFT 1440]),
     (6110, 1, True, [SHIFT 1877]), (6112, 1, True, [SHIFT 130]),
     (6114, 1, True, [REDUCE sym_initialized_variable_definition 4 0 39]),
     (6116, 1, True, [SHIFT 173]), (6118, 1, True, [SHIFT 879]), (6120, 1, True, [SHIFT 1876]),
     (6122, 1, True, [SHIFT 1364]), (6124, 1, True, [SHIFT 143]), (6126, 1, True, [SHIFT 142]),
     (6128, 1, True, [SHIFT 99]), (6130, 1, True, [SHIFT 96]),
     (6132, 1, True, [REDUCE sym__for_loop_parts 5 0 88]),
     (6134, 1, True, [REDUCE sym__for_loop_parts 5 0 90]), (6136, 1, True, [SHIFT 108]),
     (6138, 1, True, [REDUCE sym__for_loop_parts 5 0 91]), (6140, 1, True, [SHIFT 139]),
     (6142, 1, True, [SHIFT 377]), (6144, 1, False, [SHIFT 240]), (6146, 1, False, [SHIFT 2519]),
     (6148, 1, False, [SHIFT 2518]), (6150, 1, True, [SHIFT 1874]),
     (6152, 1, True, [REDUCE sym__for_loop_parts 5 0 92]), (6154, 1, True, [SHIFT 146]),
     (6156, 2, False, [REDUCE sym__var_or_type 1 0 0, SHIFT 2299]),
     (6159, 1, True, [SHIFT 1824]), (6161, 1, True, [SHIFT 177]), (6163, 1, True, [SHIFT 948]),
     (6165, 1, True, [SHIFT 3293]), (6167, 1, True, [SHIFT 1870]),
     (6169, 1, True, [REDUCE aux_sym_named_parameter_types_repeat1 2 0 0]),
     (6171, 2, True, [REDUCE aux_sym_named_parameter_types_repeat1 2 0 0, SHIFT_REPEAT 1803]),
     (6174, 1, True, [REDUCE sym__for_loop_parts 6 0 93]), (6176, 1, True, [SHIFT 1865]),
     (6178, 1, False, [SHIFT 208]), (6180, 1, False, [SHIFT 2570]),
     (6182, 1, False, [SHIFT 2569]), (6184, 1, True, [SHIFT 1830]), (6186, 1, True, [SHIFT 877]),
     (6188, 1, True, [REDUCE sym__for_loop_parts 6 0 94]),
     (6190, 1, True, [REDUCE sym__for_loop_parts 6 0 95]), (6192, 1, True, [SHIFT 265]),
     (6194, 1, True, [SHIFT 93]), (6196, 1, True, [SHIFT 1816]), (6198, 1, True, [SHIFT 881]),
     (6200, 1, True, [SHIFT 388]), (6202, 1, True, [SHIFT 1690]), (6204, 1, True, [SHIFT 95]),
     (6206, 1, True, [REDUCE sym__for_loop_parts 7 0 97]), (6208, 1, True, [SHIFT 109]),
     (6210, 1, True, [SHIFT 390]), (6212, 1, True, [SHIFT 94]), (6214, 1, True, [SHIFT 182]),
     (6216, 1, True, [SHIFT 2412]), (6218, 1, True, [SHIFT 2085]), (6220, 1, True, [SHIFT 97]),
     (6222, 1, True, [SHIFT 98]),
     (6224, 2, False, [REDUCE sym__final_const_var_or_type 2 0 0, REDUCE sym__final_var_or_type 2 0 0]),
     (6227, 1, True, [SHIFT 1862]), (6229, 1, True, [SHIFT 1282]), (6231, 1, True, [SHIFT 387]),
     (6233, 1, True, [SHIFT 1864]), (6235, 1, False, [SHIFT 3244]),
     (6237, 1, False, [SHIFT 1167]), (6239, 1, True, [SHIFT 1858]), (6241, 1, True, [SHIFT 101]),
     (6243, 1, True, [SHIFT 3059]), (6245, 1, True, [SHIFT 102]), (6247, 1, True, [SHIFT 178]),
     (6249, 1, True, [SHIFT 1221]), (6251, 1, False, [SHIFT 3127]),
     (6253, 1, False, [SHIFT 1280]),
     (6255, 1, True, [REDUCE sym_static_final_declaration_list 1 0 0]),
     (6257, 1, True, [SHIFT 1715]), (6259, 1, True, [SHIFT 2744]),
     (6261, 2, True, [REDUCE aux_sym_record_type_repeat1 2 0 0, SHIFT_REPEAT 1928]),
     (6264, 1, True, [REDUCE aux_sym_record_type_repeat1 2 0 0]), (6266, 1, True, [SHIFT 2394]),
     (6268, 1, True, [SHIFT 1857]), (6270, 1, True, [SHIFT 2380]), (6272, 1, True, [SHIFT 386]),
     (6274, 1, True, [SHIFT 241]), (6276, 1, True, [SHIFT 129]), (6278, 1, True, [SHIFT 121]),
     (6280, 1, True, [SHIFT 171]), (6282, 1, True, [REDUCE sym__argument_list 1 0 0]),
     (6284, 1, True, [SHIFT 3337]), (6286, 1, True, [SHIFT 1847]), (6288, 1, True, [SHIFT 1844]),
     (6290, 1, True, [SHIFT 1838]), (6292, 1, True, [SHIFT 2968]), (6294, 1, True, [SHIFT 385]),
     (6296, 1, False, [SHIFT 3080]), (6298, 1, True, [SHIFT 100]), (6300, 1, True, [SHIFT 120]),
     (6302, 1, True, [SHIFT 2646]), (6304, 1, True, [SHIFT 1835])]"

definition ts_parse_actions_20 :: "action_group list" where
  "ts_parse_actions_20 = [
     (6306, 1, True, [SHIFT 3143]),
     (6308, 2, True, [REDUCE aux_sym_initializers_repeat1 2 0 0, SHIFT_REPEAT 2221]),
     (6311, 1, True, [REDUCE sym__for_loop_parts 5 0 87]), (6313, 1, True, [SHIFT 78]),
     (6315, 1, True, [SHIFT 107]), (6317, 1, True, [SHIFT 3490]), (6319, 1, True, [SHIFT 1601]),
     (6321, 1, True, [SHIFT 1712]), (6323, 1, True, [SHIFT 1621]), (6325, 1, True, [SHIFT 2381]),
     (6327, 2, True, [REDUCE sym__normal_formal_parameters 2 0 0, SHIFT 931]),
     (6330, 1, True, [REDUCE sym__normal_formal_parameters 2 0 0]),
     (6332, 2, True, [REDUCE aux_sym_positional_parameters_repeat1 2 0 0, SHIFT_REPEAT 837]),
     (6335, 1, True, [REDUCE aux_sym_positional_parameters_repeat1 2 0 0]),
     (6337, 1, False, [REDUCE sym__var_or_type 2 0 0]), (6339, 1, True, [SHIFT 1602]),
     (6341, 1, True, [SHIFT 1834]), (6343, 1, False, [SHIFT 3236]),
     (6345, 1, True, [SHIFT 1819]), (6347, 1, True, [REDUCE sym_mixins 2 0 0]),
     (6349, 2, True, [REDUCE aux_sym_static_final_declaration_list_repeat1 2 0 0, SHIFT_REPEAT 3261]),
     (6352, 1, True, [REDUCE aux_sym_static_final_declaration_list_repeat1 2 0 0]),
     (6354, 1, True, [SHIFT 1851]),
     (6356, 1, True, [REDUCE sym_initialized_variable_definition 3 0 39]),
     (6358, 1, True, [REDUCE aux_sym__named_formal_parameters_repeat1 2 0 0]),
     (6360, 2, True, [REDUCE aux_sym__named_formal_parameters_repeat1 2 0 0, SHIFT_REPEAT 800]),
     (6363, 1, True, [SHIFT 389]), (6365, 1, True, [SHIFT 2014]), (6367, 1, False, [SHIFT 3060]),
     (6369, 1, True, [REDUCE sym__default_formal_parameter 1 0 0]), (6371, 1, True, [SHIFT 248]),
     (6373, 2, True, [REDUCE aux_sym__argument_list_repeat1 2 0 0, SHIFT_REPEAT 172]),
     (6376, 1, True, [REDUCE aux_sym__argument_list_repeat1 2 0 0]),
     (6378, 2, True, [REDUCE sym__final_var_or_type 1 0 0, SHIFT 3112]),
     (6381, 1, True, [SHIFT 1820]), (6383, 1, True, [SHIFT 1623]), (6385, 1, False, [SHIFT 254]),
     (6387, 1, False, [SHIFT 2498]), (6389, 1, False, [SHIFT 2499]),
     (6391, 2, True, [REDUCE aux_sym_type_arguments_repeat1 2 0 0, SHIFT_REPEAT 2075]),
     (6394, 1, True, [REDUCE aux_sym_type_arguments_repeat1 2 0 0]),
     (6396, 1, False, [SHIFT 3025]),
     (6398, 1, True, [REDUCE sym_initialized_identifier_list 1 0 0]),
     (6400, 1, True, [SHIFT 1504]), (6402, 1, True, [SHIFT 2644]), (6404, 1, True, [SHIFT 243]),
     (6406, 1, False, [SHIFT 3225]), (6408, 1, True, [SHIFT 3417]), (6410, 1, True, [SHIFT 751]),
     (6412, 1, True, [REDUCE sym_enum_constant 4 0 3]), (6414, 1, False, [SHIFT 3027]),
     (6416, 1, True, [SHIFT 1843]), (6418, 1, True, [SHIFT 1801]),
     (6420, 1, True, [REDUCE sym_enum_constant 3 0 2]), (6422, 1, True, [SHIFT 1814]),
     (6424, 1, True, [SHIFT 2996]), (6426, 1, True, [SHIFT 1206]),
     (6428, 1, True, [REDUCE sym_type_parameter 3 0 1]), (6430, 1, True, [SHIFT 220]),
     (6432, 1, True, [REDUCE sym__pattern_field 1 0 0]),
     (6434, 1, True, [REDUCE sym__named_parameter_type 3 0 0]), (6436, 1, True, [SHIFT 2169]),
     (6438, 1, True, [SHIFT 593]), (6440, 1, True, [REDUCE sym_uri_test 1 0 0]),
     (6442, 1, True, [SHIFT 1922]), (6444, 1, True, [REDUCE sym__named_parameter_type 2 0 0]),
     (6446, 1, False, [SHIFT 2309]), (6448, 1, False, [SHIFT 3514]),
     (6450, 1, True, [REDUCE sym__default_named_parameter 4 0 0]), (6452, 1, True, [SHIFT 2103]),
     (6454, 1, True, [REDUCE sym_static_final_declaration 3 0 0]),
     (6456, 1, True, [REDUCE sym_type_parameter 4 0 7]),
     (6458, 1, True, [REDUCE sym_type_parameter 4 0 0]), (6460, 1, True, [SHIFT 2062]),
     (6462, 1, True, [REDUCE sym__default_formal_parameter 3 0 0]),
     (6464, 1, True, [SHIFT 2716]), (6466, 1, True, [SHIFT 1371]),
     (6468, 1, True, [REDUCE sym__any_argument 1 0 0]), (6470, 1, False, [SHIFT 3488]),
     (6472, 1, True, [REDUCE sym_constant_constructor_signature 3 0 0]),
     (6474, 1, True, [REDUCE sym_argument 1 0 0]),
     (6476, 2, True, [REDUCE sym_record_field 1 0 0, SHIFT 3480]), (6479, 1, True, [SHIFT 1243]),
     (6481, 1, True, [REDUCE sym_interfaces 2 0 0]), (6483, 1, True, [SHIFT 353]),
     (6485, 1, True, [REDUCE sym_record_type_named_field 2 0 0]), (6487, 1, True, [SHIFT 193]),
     (6489, 1, True, [SHIFT 2333]), (6491, 1, True, [SHIFT 1614]), (6493, 1, True, [SHIFT 80]),
     (6495, 1, True, [SHIFT 119]), (6497, 1, True, [SHIFT 1167]), (6499, 1, True, [SHIFT 164]),
     (6501, 1, True, [SHIFT 186]), (6503, 1, True, [SHIFT 63]), (6505, 1, True, [SHIFT 3372]),
     (6507, 1, True, [SHIFT 3371]), (6509, 1, True, [REDUCE sym_record_field 2 0 0]),
     (6511, 1, True, [REDUCE sym_base 1 0 0]), (6513, 1, True, [SHIFT 105]),
     (6515, 1, True, [SHIFT 104]), (6517, 1, True, [REDUCE sym__list_pattern_element 1 0 0]),
     (6519, 1, True, [REDUCE sym_record_type_named_field 1 0 0]),
     (6521, 1, False, [REDUCE sym_mixin 1 0 0]), (6523, 1, True, [SHIFT 74]),
     (6525, 1, True, [SHIFT 56]), (6527, 2, True, [REDUCE sym_record_field 1 0 0, SHIFT 3434]),
     (6530, 1, True, [SHIFT 870]),
     (6532, 2, True, [REDUCE sym__pattern_field 1 0 0, SHIFT 2022]), (6535, 1, True, [SHIFT 29]),
     (6537, 1, True, [SHIFT 34]), (6539, 1, True, [SHIFT 374]), (6541, 1, True, [SHIFT 2534]),
     (6543, 1, True, [SHIFT 163]), (6545, 1, True, [SHIFT 2710]), (6547, 1, True, [SHIFT 40]),
     (6549, 1, True, [SHIFT 415]), (6551, 1, True, [SHIFT 116]), (6553, 1, True, [SHIFT 115]),
     (6555, 1, True, [SHIFT 266]), (6557, 1, True, [SHIFT 223]), (6559, 1, True, [SHIFT 2906]),
     (6561, 1, True, [SHIFT 140]), (6563, 1, True, [SHIFT 136]), (6565, 1, True, [SHIFT 1280]),
     (6567, 1, True, [SHIFT 3332]), (6569, 1, True, [SHIFT 3324]),
     (6571, 1, True, [REDUCE sym_redirecting_factory_constructor_signature 7 0 0]),
     (6573, 1, True, [SHIFT 3327]), (6575, 1, True, [SHIFT 2375]),
     (6577, 1, True, [REDUCE sym__pattern_field 2 0 0]), (6579, 1, True, [SHIFT 72]),
     (6581, 1, True, [SHIFT 52]), (6583, 1, True, [SHIFT 137]), (6585, 1, True, [SHIFT 138]),
     (6587, 1, True, [SHIFT 236]), (6589, 1, True, [REDUCE sym_rest_pattern 2 0 0]),
     (6591, 2, True, [REDUCE sym_record_field 1 0 0, SHIFT 3447]), (6594, 1, True, [SHIFT 571]),
     (6596, 1, True, [SHIFT 953]), (6598, 1, True, [SHIFT 179]), (6600, 1, True, [SHIFT 379]),
     (6602, 1, True, [REDUCE sym__named_parameter_type 1 0 0]), (6604, 1, True, [SHIFT 5]),
     (6606, 1, True, [SHIFT 407]),
     (6608, 1, True, [REDUCE aux_sym__for_loop_parts_repeat1 2 0 64]),
     (6610, 2, True, [REDUCE sym_record_field 1 0 0, SHIFT 3341]), (6613, 1, True, [SHIFT 1128]),
     (6615, 1, True, [SHIFT 370]), (6617, 1, True, [REDUCE sym__map_pattern_entry 3 0 0])]"

definition ts_parse_actions_21 :: "action_group list" where
  "ts_parse_actions_21 = [
     (6619, 1, True, [SHIFT 2107]), (6621, 1, True, [SHIFT 221]), (6623, 1, True, [SHIFT 3274]),
     (6625, 1, True, [REDUCE sym_redirecting_factory_constructor_signature 6 0 0]),
     (6627, 1, True, [SHIFT 77]), (6629, 1, True, [SHIFT 54]),
     (6631, 1, True, [REDUCE sym_superclass 3 0 0]), (6633, 1, True, [SHIFT 32]),
     (6635, 1, True, [SHIFT 408]), (6637, 1, True, [SHIFT 228]), (6639, 1, True, [SHIFT 154]),
     (6641, 1, True, [SHIFT 412]), (6643, 1, True, [REDUCE sym_record_field 1 0 0]),
     (6645, 1, True, [SHIFT 2834]), (6647, 1, True, [REDUCE sym_initialized_identifier 3 0 0]),
     (6649, 1, False, [SHIFT 2312]),
     (6651, 1, True, [REDUCE sym__default_named_parameter 5 0 0]), (6653, 1, True, [SHIFT 1911]),
     (6655, 1, True, [REDUCE sym_constant_constructor_signature 5 0 0]),
     (6657, 1, True, [SHIFT 2094]),
     (6659, 1, True, [REDUCE aux_sym__for_loop_parts_repeat2 2 0 55]),
     (6661, 1, True, [REDUCE sym_superclass 1 0 0]), (6663, 1, False, [SHIFT 2327]),
     (6665, 1, True, [SHIFT 3389]),
     (6667, 1, True, [REDUCE sym_redirecting_factory_constructor_signature 5 0 0]),
     (6669, 1, True, [REDUCE sym_named_argument 2 0 0]),
     (6671, 1, True, [REDUCE sym__pattern_field 3 0 0]), (6673, 1, True, [SHIFT 157]),
     (6675, 1, True, [SHIFT 155]), (6677, 1, True, [REDUCE sym_type_bound 2 0 0]),
     (6679, 1, True, [REDUCE sym_switch_expression_case 3 0 0]), (6681, 1, True, [SHIFT 2470]),
     (6683, 1, True, [SHIFT 2031]), (6685, 1, True, [SHIFT 971]), (6687, 1, True, [SHIFT 3435]),
     (6689, 1, True, [SHIFT 1510]), (6691, 1, True, [SHIFT 2603]), (6693, 1, True, [SHIFT 565]),
     (6695, 1, True, [SHIFT 11]), (6697, 1, True, [SHIFT 2538]), (6699, 1, True, [SHIFT 3534]),
     (6701, 1, True, [SHIFT 1183]), (6703, 1, True, [SHIFT 152]), (6705, 1, True, [SHIFT 7]),
     (6707, 1, True, [SHIFT 214]), (6709, 1, True, [SHIFT 3532]), (6711, 1, True, [SHIFT 866]),
     (6713, 1, True, [REDUCE sym__for_loop_parts 4 0 78]), (6715, 1, True, [SHIFT 1700]),
     (6717, 1, True, [SHIFT 2069]), (6719, 1, True, [SHIFT 1134]),
     (6721, 1, True, [REDUCE sym__mixin_class_modifiers 4 0 0]), (6723, 1, True, [SHIFT 864]),
     (6725, 1, True, [SHIFT 2512]),
     (6727, 1, True, [REDUCE sym__optional_postional_formal_parameters 3 0 0]),
     (6729, 1, True, [SHIFT 2321]), (6731, 1, True, [REDUCE sym_declaration 5 0 0]),
     (6733, 1, True, [SHIFT 2116]), (6735, 1, True, [SHIFT 665]), (6737, 1, True, [SHIFT 666]),
     (6739, 1, True, [SHIFT 861]), (6741, 1, True, [SHIFT 856]), (6743, 1, True, [SHIFT 2072]),
     (6745, 1, True, [SHIFT 1505]), (6747, 1, True, [SHIFT 2112]), (6749, 1, True, [SHIFT 2008]),
     (6751, 1, True, [SHIFT 2539]), (6753, 1, True, [SHIFT 300]), (6755, 1, True, [SHIFT 1216]),
     (6757, 1, True, [SHIFT 19]), (6759, 1, True, [SHIFT 1523]), (6761, 1, True, [SHIFT 3382]),
     (6763, 1, True, [SHIFT 1512]), (6765, 1, True, [SHIFT 1544]), (6767, 1, True, [SHIFT 1508]),
     (6769, 1, True, [SHIFT 1503]), (6771, 1, True, [SHIFT 3461]), (6773, 1, True, [SHIFT 854]),
     (6775, 1, True, [SHIFT 1042]), (6777, 1, True, [SHIFT 2347]), (6779, 1, True, [SHIFT 1155]),
     (6781, 1, True, [SHIFT 295]), (6783, 1, False, [SHIFT 3573]), (6785, 1, True, [SHIFT 3089]),
     (6787, 1, True, [SHIFT 2576]), (6789, 1, True, [SHIFT 901]), (6791, 1, True, [SHIFT 1424]),
     (6793, 1, True, [SHIFT 1178]), (6795, 1, True, [REDUCE sym__bitwise_operator 1 0 0]),
     (6797, 1, True, [SHIFT 1122]), (6799, 1, True, [SHIFT 1124]),
     (6801, 1, True, [REDUCE sym_binary_operator 1 0 0]),
     (6803, 1, True, [REDUCE sym_bitwise_operator 1 0 0]), (6805, 1, True, [SHIFT 224]),
     (6807, 1, True, [SHIFT 1051]), (6809, 1, True, [SHIFT 281]), (6811, 1, True, [SHIFT 1694]),
     (6813, 1, True, [SHIFT 671]),
     (6815, 1, True, [REDUCE sym_optional_positional_parameter_types 5 0 0]),
     (6817, 1, True, [SHIFT 1079]), (6819, 1, True, [SHIFT 1082]), (6821, 1, True, [SHIFT 1080]),
     (6823, 1, True, [SHIFT 1083]), (6825, 1, True, [SHIFT 1070]),
     (6827, 1, True, [REDUCE sym_named_parameter_types 5 0 0]),
     (6829, 1, True, [REDUCE sym_uri_test 3 0 0]), (6831, 1, True, [SHIFT 1309]),
     (6833, 1, True, [SHIFT 2441]), (6835, 1, True, [SHIFT 2109]), (6837, 1, True, [SHIFT 848]),
     (6839, 1, True, [SHIFT 3423]), (6841, 1, True, [SHIFT 1229]), (6843, 1, True, [SHIFT 1230]),
     (6845, 1, True, [SHIFT 401]), (6847, 1, True, [SHIFT 1227]),
     (6849, 1, True, [REDUCE sym_catch_parameters 3 0 0]), (6851, 1, True, [SHIFT 3365]),
     (6853, 1, True, [SHIFT 2146]), (6855, 1, True, [SHIFT 1197]), (6857, 1, True, [SHIFT 600]),
     (6859, 1, True, [SHIFT 1196]), (6861, 1, True, [SHIFT 1702]), (6863, 1, True, [SHIFT 2438]),
     (6865, 1, True, [SHIFT 2423]), (6867, 1, True, [SHIFT 535]), (6869, 1, True, [SHIFT 2396]),
     (6871, 1, True, [SHIFT 3427]), (6873, 1, True, [SHIFT 2387]), (6875, 1, True, [SHIFT 657]),
     (6877, 1, True, [SHIFT 1240]), (6879, 1, True, [SHIFT 591]), (6881, 1, True, [SHIFT 584]),
     (6883, 1, True, [SHIFT 578]), (6885, 1, True, [SHIFT 3428]), (6887, 1, True, [SHIFT 1057]),
     (6889, 1, True, [SHIFT 1052]), (6891, 1, True, [SHIFT 1068]), (6893, 1, True, [SHIFT 269]),
     (6895, 1, True, [SHIFT 1113]), (6897, 1, True, [SHIFT 1112]), (6899, 1, True, [SHIFT 1110]),
     (6901, 1, True, [SHIFT 1762]), (6903, 1, True, [SHIFT 612]), (6905, 1, True, [SHIFT 614]),
     (6907, 1, True, [SHIFT 611]), (6909, 1, True, [SHIFT 646]), (6911, 1, True, [SHIFT 638]),
     (6913, 1, True, [SHIFT 651]), (6915, 1, True, [SHIFT 249]), (6917, 1, True, [SHIFT 205])]"

definition ts_parse_actions_22 :: "action_group list" where
  "ts_parse_actions_22 = [
     (6919, 1, True, [SHIFT 233]), (6921, 1, True, [SHIFT 2278]), (6923, 1, True, [SHIFT 2528]),
     (6925, 1, True, [SHIFT 1376]), (6927, 1, True, [SHIFT 1745]), (6929, 1, True, [SHIFT 2106]),
     (6931, 1, True, [REDUCE sym__named_formal_parameters 3 0 0]),
     (6933, 1, True, [REDUCE sym_redirection 5 0 0]), (6935, 1, True, [SHIFT 2282]),
     (6937, 1, True, [REDUCE sym__final_var_or_type 2 0 0]),
     (6939, 1, True, [REDUCE sym_catch_parameters 5 0 0]),
     (6941, 1, True, [REDUCE sym_optional_formal_parameters 1 0 0]),
     (6943, 1, True, [SHIFT 891]), (6945, 1, True, [SHIFT 563]),
     (6947, 1, True, [REDUCE sym_nullable_selector 1 0 0]), (6949, 1, True, [ACCEPT_INPUT]),
     (6951, 1, True, [SHIFT 970]), (6953, 1, True, [REDUCE sym_mixin_application 3 0 0]),
     (6955, 1, True, [REDUCE sym_catch_clause 2 0 0]),
     (6957, 1, True, [REDUCE sym_redirecting_factory_constructor_signature 8 0 0]),
     (6959, 1, True, [REDUCE sym__for_loop_parts 3 0 39]), (6961, 1, True, [SHIFT 1619]),
     (6963, 1, True, [SHIFT 1629]), (6965, 1, True, [REDUCE sym__class_modifiers 2 0 0]),
     (6967, 1, True, [SHIFT 1624]), (6969, 1, True, [SHIFT 1411]), (6971, 1, True, [SHIFT 2573]),
     (6973, 1, True, [SHIFT 1479]), (6975, 1, True, [REDUCE sym_named_parameter_types 4 0 0]),
     (6977, 1, True, [REDUCE sym__for_loop_parts 3 0 63]), (6979, 1, True, [SHIFT 629]),
     (6981, 1, True, [SHIFT 575]), (6983, 1, True, [SHIFT 3088]), (6985, 1, True, [SHIFT 41]),
     (6987, 1, True, [SHIFT 1633]), (6989, 1, True, [SHIFT 2084]), (6991, 1, True, [SHIFT 28]),
     (6993, 1, True, [SHIFT 656]), (6995, 1, True, [SHIFT 3524]), (6997, 1, True, [SHIFT 1522]),
     (6999, 1, True, [SHIFT 1637]),
     (7001, 1, True, [REDUCE sym_redirecting_factory_constructor_signature 9 0 0]),
     (7003, 1, True, [SHIFT 22]), (7005, 1, True, [SHIFT 543]), (7007, 1, True, [SHIFT 850]),
     (7009, 1, True, [SHIFT 10]), (7011, 1, True, [SHIFT 304]), (7013, 1, True, [SHIFT 2123]),
     (7015, 1, True, [SHIFT 286]), (7017, 1, True, [REDUCE sym_optional_parameter_types 1 0 0]),
     (7019, 1, True, [SHIFT 2944]), (7021, 1, True, [REDUCE sym_sealed 1 0 0]),
     (7023, 1, True, [SHIFT 2914]), (7025, 1, True, [SHIFT 998]), (7027, 1, True, [SHIFT 618]),
     (7029, 1, True, [REDUCE sym_interface 1 0 0]), (7031, 1, True, [SHIFT 256]),
     (7033, 1, True, [REDUCE sym__deferred 1 0 0]),
     (7035, 1, True, [REDUCE sym__dot_identifier 2 19 0]),
     (7037, 1, True, [REDUCE sym__as 1 0 0]), (7039, 1, True, [SHIFT 2491]),
     (7041, 1, True, [REDUCE sym__mixin_class_modifiers 3 0 0]), (7043, 1, True, [SHIFT 1419]),
     (7045, 1, True, [REDUCE sym__class_modifiers 3 0 0]), (7047, 1, True, [SHIFT 310]),
     (7049, 1, True, [SHIFT 2487]), (7051, 1, True, [SHIFT 3296]), (7053, 1, True, [SHIFT 1643]),
     (7055, 1, True, [SHIFT 206]), (7057, 1, True, [SHIFT 253]), (7059, 1, True, [SHIFT 1650]),
     (7061, 1, True, [SHIFT 876]), (7063, 1, True, [SHIFT 875]), (7065, 1, True, [SHIFT 1781]),
     (7067, 1, False, [SHIFT 3459]), (7069, 1, True, [SHIFT 1765]),
     (7071, 1, True, [SHIFT 1429]), (7073, 1, True, [SHIFT 1433]), (7075, 1, True, [SHIFT 1893]),
     (7077, 1, True, [SHIFT 606]), (7079, 1, True, [SHIFT 2076]), (7081, 1, True, [SHIFT 1435]),
     (7083, 1, True, [SHIFT 362]), (7085, 1, True, [REDUCE sym__mixin_class_modifiers 2 0 0]),
     (7087, 1, True, [SHIFT 3488]), (7089, 1, True, [SHIFT 1446]), (7091, 1, True, [SHIFT 918]),
     (7093, 1, True, [REDUCE sym_pattern_variable_declaration 4 0 0]),
     (7095, 1, True, [REDUCE sym_declaration 3 0 0]), (7097, 1, True, [SHIFT 2542]),
     (7099, 1, True, [SHIFT 3422]), (7101, 1, True, [SHIFT 1185]), (7103, 1, True, [SHIFT 3483]),
     (7105, 1, True, [SHIFT 2334]), (7107, 1, True, [REDUCE sym__class_modifiers 1 0 0]),
     (7109, 1, True, [REDUCE sym__factory 1 0 0]), (7111, 1, True, [SHIFT 2131]),
     (7113, 1, True, [SHIFT 250]), (7115, 1, True, [SHIFT 2132]),
     (7117, 2, True, [REDUCE sym__var_or_type 1 0 0, SHIFT 2513]), (7120, 1, True, [SHIFT 2292]),
     (7122, 1, True, [SHIFT 2205]), (7124, 1, True, [SHIFT 3310]),
     (7126, 1, True, [REDUCE sym__optional_postional_formal_parameters 4 0 0]),
     (7128, 1, True, [SHIFT 2257]), (7130, 1, True, [SHIFT 2235]), (7132, 1, True, [SHIFT 291]),
     (7134, 1, False, [SHIFT 3575]), (7136, 1, True, [REDUCE sym_declaration 4 0 0]),
     (7138, 1, True, [REDUCE sym__final_var_or_type 1 0 0]),
     (7140, 1, True, [REDUCE sym_redirection 3 0 0]), (7142, 1, True, [SHIFT 1264]),
     (7144, 1, False, [SHIFT 3331]), (7146, 1, True, [SHIFT 3303]),
     (7148, 1, False, [SHIFT 3576]), (7150, 1, True, [SHIFT 399]),
     (7152, 1, True, [REDUCE sym__named_formal_parameters 4 0 0]),
     (7154, 1, True, [REDUCE sym__optional_postional_formal_parameters 5 0 0]),
     (7156, 1, True, [SHIFT 1641]), (7158, 1, True, [SHIFT 422]),
     (7160, 1, True, [REDUCE sym__named_formal_parameters 5 0 0]), (7162, 1, True, [SHIFT 2139]),
     (7164, 1, True, [SHIFT 400]), (7166, 1, True, [SHIFT 1685]),
     (7168, 1, True, [REDUCE sym_optional_positional_parameter_types 3 0 0]),
     (7170, 1, True, [SHIFT 404]), (7172, 1, True, [REDUCE sym_named_parameter_types 3 0 0]),
     (7174, 1, True, [SHIFT 2599]), (7176, 1, True, [SHIFT 1670]), (7178, 1, True, [SHIFT 1697]),
     (7180, 1, True, [REDUCE sym_optional_positional_parameter_types 4 0 0]),
     (7182, 1, True, [SHIFT 2268]), (7184, 1, True, [REDUCE sym_documentation_comment 1 0 0]),
     (7186, 1, True, [REDUCE sym_comment 3 0 0]), (7188, 1, True, [REDUCE sym_comment 1 0 0]),
     (7190, 1, True, [REDUCE sym_documentation_comment 2 0 0]),
     (7192, 1, True, [REDUCE sym_comment 2 0 0])]"

definition ts_parse_action_groups :: "action_group list" where
  "ts_parse_action_groups =
     ts_parse_actions_1 @ ts_parse_actions_2 @ ts_parse_actions_3 @ ts_parse_actions_4 @
     ts_parse_actions_5 @ ts_parse_actions_6 @ ts_parse_actions_7 @ ts_parse_actions_8 @
     ts_parse_actions_9 @ ts_parse_actions_10 @ ts_parse_actions_11 @ ts_parse_actions_12 @
     ts_parse_actions_13 @ ts_parse_actions_14 @ ts_parse_actions_15 @ ts_parse_actions_16 @
     ts_parse_actions_17 @ ts_parse_actions_18 @ ts_parse_actions_19 @ ts_parse_actions_20 @
     ts_parse_actions_21 @ ts_parse_actions_22"

text \<open>The flat array.\<close>

fun group_entries :: "action_group \<Rightarrow> TSParseActionEntry list" where
  "group_entries (i, count, reusable, actions) = ENTRY count reusable # map ACTION actions"

definition ts_parse_actions :: "TSParseActionEntry list" where
  "ts_parse_actions = concat (map group_entries ts_parse_action_groups)"

subsection \<open>Layout\<close>

text \<open>
  \<open>groups_at n gs k\<close>: the groups lie one after the other from index \<open>n\<close> up to \<open>k\<close>, each at the index
  its initialiser names and with as many actions as its header counts.
\<close>

fun groups_at :: "nat \<Rightarrow> action_group list \<Rightarrow> nat \<Rightarrow> bool" where
  "groups_at n [] k \<longleftrightarrow> n = k"
| "groups_at n ((i, count, reusable, actions) # gs) k \<longleftrightarrow>
     i = n \<and> length actions = count \<and> groups_at (n + Suc count) gs k"

lemma groups_at_append: "groups_at n gs k \<Longrightarrow> groups_at n (gs @ hs) m = groups_at k hs m"
  by (induction n gs k rule: groups_at.induct) auto

lemma groups_at_counts:
  "groups_at n gs k \<Longrightarrow> (i, count, reusable, actions) \<in> set gs \<Longrightarrow> length actions = count"
  by (induction n gs k rule: groups_at.induct) auto

lemma groups_at_laid_out: "groups_at n gs k \<Longrightarrow> laid_out n (map (\<lambda>g. (fst g, group_entries g)) gs) k"
  by (induction n gs k rule: groups_at.induct) auto

lemma groups_at_1: "groups_at 0 ts_parse_actions_1 352"
  by (simp add: ts_parse_actions_1_def)

lemma groups_at_2: "groups_at 352 ts_parse_actions_2 652"
  by (simp add: ts_parse_actions_2_def)

lemma groups_at_3: "groups_at 652 ts_parse_actions_3 973"
  by (simp add: ts_parse_actions_3_def)

lemma groups_at_4: "groups_at 973 ts_parse_actions_4 1312"
  by (simp add: ts_parse_actions_4_def)

lemma groups_at_5: "groups_at 1312 ts_parse_actions_5 1645"
  by (simp add: ts_parse_actions_5_def)

lemma groups_at_6: "groups_at 1645 ts_parse_actions_6 2003"
  by (simp add: ts_parse_actions_6_def)

lemma groups_at_7: "groups_at 2003 ts_parse_actions_7 2378"
  by (simp add: ts_parse_actions_7_def)

lemma groups_at_8: "groups_at 2378 ts_parse_actions_8 2728"
  by (simp add: ts_parse_actions_8_def)

lemma groups_at_9: "groups_at 2728 ts_parse_actions_9 3060"
  by (simp add: ts_parse_actions_9_def)

lemma groups_at_10: "groups_at 3060 ts_parse_actions_10 3432"
  by (simp add: ts_parse_actions_10_def)

lemma groups_at_11: "groups_at 3432 ts_parse_actions_11 3795"
  by (simp add: ts_parse_actions_11_def)

lemma groups_at_12: "groups_at 3795 ts_parse_actions_12 4107"
  by (simp add: ts_parse_actions_12_def)

lemma groups_at_13: "groups_at 4107 ts_parse_actions_13 4426"
  by (simp add: ts_parse_actions_13_def)

lemma groups_at_14: "groups_at 4426 ts_parse_actions_14 4741"
  by (simp add: ts_parse_actions_14_def)

lemma groups_at_15: "groups_at 4741 ts_parse_actions_15 5063"
  by (simp add: ts_parse_actions_15_def)

lemma groups_at_16: "groups_at 5063 ts_parse_actions_16 5374"
  by (simp add: ts_parse_actions_16_def)

lemma groups_at_17: "groups_at 5374 ts_parse_actions_17 5686"
  by (simp add: ts_parse_actions_17_def)

lemma groups_at_18: "groups_at 5686 ts_parse_actions_18 6000"
  by (simp add: ts_parse_actions_18_def)

lemma groups_at_19: "groups_at 6000 ts_parse_actions_19 6306"
  by (simp add: ts_parse_actions_19_def)

lemma groups_at_20: "groups_at 6306 ts_parse_actions_20 6619"
  by (simp add: ts_parse_actions_20_def)

lemma groups_at_21: "groups_at 6619 ts_parse_actions_21 6919"
  by (simp add: ts_parse_actions_21_def)

lemma groups_at_22: "groups_at 6919 ts_parse_actions_22 7194"
  by (simp add: ts_parse_actions_22_def)

lemma groups_at_all: "groups_at 0 ts_parse_action_groups 7194"
  by (simp add: ts_parse_action_groups_def groups_at_append
    groups_at_append [OF groups_at_1] groups_at_append [OF groups_at_2]
    groups_at_append [OF groups_at_3] groups_at_append [OF groups_at_4]
    groups_at_append [OF groups_at_5] groups_at_append [OF groups_at_6]
    groups_at_append [OF groups_at_7] groups_at_append [OF groups_at_8]
    groups_at_append [OF groups_at_9] groups_at_append [OF groups_at_10]
    groups_at_append [OF groups_at_11] groups_at_append [OF groups_at_12]
    groups_at_append [OF groups_at_13] groups_at_append [OF groups_at_14]
    groups_at_append [OF groups_at_15] groups_at_append [OF groups_at_16]
    groups_at_append [OF groups_at_17] groups_at_append [OF groups_at_18]
    groups_at_append [OF groups_at_19] groups_at_append [OF groups_at_20]
    groups_at_append [OF groups_at_21] groups_at_22)

lemma action_group_layout:
  assumes "(i, count, reusable, actions) \<in> set ts_parse_action_groups"
  shows "length ts_parse_actions = 7194 \<and> i + count < 7194 \<and> length actions = count \<and>
    ts_parse_actions ! i = ENTRY count reusable \<and>
    (\<forall>j < count. ts_parse_actions ! (i + Suc j) = ACTION (actions ! j))"
proof -
  let ?gs = "map (\<lambda>g. (fst g, group_entries g)) ts_parse_action_groups"
  note lo = groups_at_laid_out [OF groups_at_all]
  have acts: "concat (map snd ?gs) = ts_parse_actions" by (simp add: ts_parse_actions_def comp_def)
  have c: "length actions = count" by (rule groups_at_counts [OF groups_at_all assms])
  have g: "(i, ENTRY count reusable # map ACTION actions) \<in> set ?gs" using assms by force
  note segment = laid_out_segment [OF lo g, unfolded acts] laid_out_length [OF lo, unfolded acts]
    laid_out_nth [OF lo g, unfolded acts]
  from segment(1,2) c have "length ts_parse_actions = 7194" "i + count < 7194" by simp_all
  moreover have "ts_parse_actions ! i = ENTRY count reusable" using segment(3) [of 0] by simp
  moreover have "ts_parse_actions ! (i + Suc j) = ACTION (actions ! j)" if "j < count" for j
    using segment(3) [of "Suc j"] that c by simp
  ultimately show ?thesis using c by blast
qed

text \<open>
  C20. The designated initialisers of \<^verbatim>\<open>ts_parse_actions\<close> are consistent: the array has 7194 entries;
  every group starts at the index it names with its header, whose count is the number of actions
  that follow before the next group, and these are the actions of the group.
\<close>

theorem parse_actions_layout:
  assumes "(i, count, reusable, actions) \<in> set ts_parse_action_groups"
  shows "length ts_parse_actions = 7194 \<and> i + count < 7194 \<and> length actions = count \<and>
    ts_parse_actions ! i = ENTRY count reusable \<and>
    (\<forall>j < count. ts_parse_actions ! (i + Suc j) = ACTION (actions ! j))"
  by (rule action_group_layout [OF assms])

theorem parse_actions_layout_witness:
  "ts_parse_actions ! 1 = ENTRY 1 False \<and> ts_parse_actions ! 2 = ACTION RECOVER"
proof -
  have "(1, 1, False, [RECOVER]) \<in> set ts_parse_action_groups"
    by (simp add: ts_parse_action_groups_def ts_parse_actions_1_def)
  from parse_actions_layout [OF this] show ?thesis by (auto simp: numeral_2_eq_2)
qed

subsection \<open>Bounds\<close>

text \<open>
  What an action may refer to: states of the table, non-terminals, production ids, and no field or
  alias of the production on a child the reduction does not have.
\<close>

fun action_ok :: "TSParseAction \<Rightarrow> bool" where
  "action_ok (SHIFT s) \<longleftrightarrow> s < STATE_COUNT"
| "action_ok (SHIFT_REPEAT s) \<longleftrightarrow> s < STATE_COUNT"
| "action_ok SHIFT_EXTRA \<longleftrightarrow> True"
| "action_ok (REDUCE sy children precedence p) \<longleftrightarrow>
     TOKEN_COUNT \<le> sy \<and> sy < SYMBOL_COUNT \<and> p < PRODUCTION_ID_COUNT \<and>
     children \<le> MAX_ALIAS_SEQUENCE_LENGTH \<and> field_width p \<le> children \<and> alias_width p \<le> children"
| "action_ok RECOVER \<longleftrightarrow> True"
| "action_ok ACCEPT_INPUT \<longleftrightarrow> True"

text \<open>
  The driver carries out the actions of a group one after the other; a reduction leaves it on the
  same lookahead, any other action ends the round. So such an action can only be the last one.
\<close>

fun is_reduce :: "TSParseAction \<Rightarrow> bool" where
  "is_reduce (REDUCE sy children precedence p) \<longleftrightarrow> True"
| "is_reduce _ \<longleftrightarrow> False"

fun reduces_first :: "TSParseAction list \<Rightarrow> bool" where
  "reduces_first [] \<longleftrightarrow> True"
| "reduces_first [a] \<longleftrightarrow> True"
| "reduces_first (a # b # actions) \<longleftrightarrow> is_reduce a \<and> reduces_first (b # actions)"

lemma reduces_first_last: "reduces_first actions \<Longrightarrow> Suc j < length actions \<Longrightarrow> is_reduce (actions ! j)"
  by (induction actions arbitrary: j rule: reduces_first.induct) (auto simp: nth_Cons split: nat.splits)

definition group_ok :: "action_group \<Rightarrow> bool" where
  "group_ok g =
     (case g of (i, count, reusable, actions) \<Rightarrow>
        list_all action_ok actions \<and> reduces_first actions \<and> (i = 0 \<or> actions \<noteq> []))"

lemmas action_simps = group_ok_def field_width_eqs alias_width_eq

lemma actions_ok_1: "list_all group_ok ts_parse_actions_1"
  by (simp add: action_simps ts_parse_actions_1_def)

lemma actions_ok_2: "list_all group_ok ts_parse_actions_2"
  by (simp add: action_simps ts_parse_actions_2_def)

lemma actions_ok_3: "list_all group_ok ts_parse_actions_3"
  by (simp add: action_simps ts_parse_actions_3_def)

lemma actions_ok_4: "list_all group_ok ts_parse_actions_4"
  by (simp add: action_simps ts_parse_actions_4_def)

lemma actions_ok_5: "list_all group_ok ts_parse_actions_5"
  by (simp add: action_simps ts_parse_actions_5_def)

lemma actions_ok_6: "list_all group_ok ts_parse_actions_6"
  by (simp add: action_simps ts_parse_actions_6_def)

lemma actions_ok_7: "list_all group_ok ts_parse_actions_7"
  by (simp add: action_simps ts_parse_actions_7_def)

lemma actions_ok_8: "list_all group_ok ts_parse_actions_8"
  by (simp add: action_simps ts_parse_actions_8_def)

lemma actions_ok_9: "list_all group_ok ts_parse_actions_9"
  by (simp add: action_simps ts_parse_actions_9_def)

lemma actions_ok_10: "list_all group_ok ts_parse_actions_10"
  by (simp add: action_simps ts_parse_actions_10_def)

lemma actions_ok_11: "list_all group_ok ts_parse_actions_11"
  by (simp add: action_simps ts_parse_actions_11_def)

lemma actions_ok_12: "list_all group_ok ts_parse_actions_12"
  by (simp add: action_simps ts_parse_actions_12_def)

lemma actions_ok_13: "list_all group_ok ts_parse_actions_13"
  by (simp add: action_simps ts_parse_actions_13_def)

lemma actions_ok_14: "list_all group_ok ts_parse_actions_14"
  by (simp add: action_simps ts_parse_actions_14_def)

lemma actions_ok_15: "list_all group_ok ts_parse_actions_15"
  by (simp add: action_simps ts_parse_actions_15_def)

lemma actions_ok_16: "list_all group_ok ts_parse_actions_16"
  by (simp add: action_simps ts_parse_actions_16_def)

lemma actions_ok_17: "list_all group_ok ts_parse_actions_17"
  by (simp add: action_simps ts_parse_actions_17_def)

lemma actions_ok_18: "list_all group_ok ts_parse_actions_18"
  by (simp add: action_simps ts_parse_actions_18_def)

lemma actions_ok_19: "list_all group_ok ts_parse_actions_19"
  by (simp add: action_simps ts_parse_actions_19_def)

lemma actions_ok_20: "list_all group_ok ts_parse_actions_20"
  by (simp add: action_simps ts_parse_actions_20_def)

lemma actions_ok_21: "list_all group_ok ts_parse_actions_21"
  by (simp add: action_simps ts_parse_actions_21_def)

lemma actions_ok_22: "list_all group_ok ts_parse_actions_22"
  by (simp add: action_simps ts_parse_actions_22_def)

lemma actions_ok_all: "list_all group_ok ts_parse_action_groups"
  by (simp add: ts_parse_action_groups_def
    actions_ok_1 actions_ok_2 actions_ok_3 actions_ok_4 actions_ok_5 actions_ok_6
    actions_ok_7 actions_ok_8 actions_ok_9 actions_ok_10 actions_ok_11 actions_ok_12
    actions_ok_13 actions_ok_14 actions_ok_15 actions_ok_16 actions_ok_17 actions_ok_18
    actions_ok_19 actions_ok_20 actions_ok_21 actions_ok_22)

text \<open>
  C19. Every action of \<^verbatim>\<open>ts_parse_actions\<close> stays inside the tables: shifts go to states of the parse
  table; reductions build non-terminals of the grammar from at most \<^verbatim>\<open>MAX_ALIAS_SEQUENCE_LENGTH\<close>
  children with a known production id, and the fields and aliases of that production only concern
  children the reduction has.
\<close>

theorem parse_actions_in_bounds:
  assumes "ACTION a \<in> set ts_parse_actions"
  shows "case a of
      SHIFT s \<Rightarrow> s < STATE_COUNT
    | SHIFT_REPEAT s \<Rightarrow> s < STATE_COUNT
    | REDUCE sy children precedence p \<Rightarrow>
        TOKEN_COUNT \<le> sy \<and> sy < SYMBOL_COUNT \<and> p < PRODUCTION_ID_COUNT \<and>
        children \<le> MAX_ALIAS_SEQUENCE_LENGTH \<and>
        (\<forall>e \<in> set (production_fields p). child_index e < children) \<and>
        (\<forall>i < MAX_ALIAS_SEQUENCE_LENGTH. production_aliases p ! i \<noteq> 0 \<longrightarrow> i < children)
    | _ \<Rightarrow> True"
proof -
  from assms obtain i count reusable actions where
    g: "(i, count, reusable, actions) \<in> set ts_parse_action_groups" "a \<in> set actions"
    by (auto simp: ts_parse_actions_def)
  with actions_ok_all have ok: "action_ok a" by (auto simp: list_all_iff group_ok_def)
  have al: "length (production_aliases p) = 10" if "p < PRODUCTION_ID_COUNT" for p
    using that by (auto simp: production_aliases_def ts_alias_sequences_def designated_nth split: option.split)
  show ?thesis
  proof (cases a)
    case (REDUCE sy children precedence p)
    with ok alias_width_le [of p] al [of p] show ?thesis
      by (auto simp: field_width_le intro: ccontr)
  qed (use ok in auto)
qed

theorem parse_actions_in_bounds_witness: "ACTION (SHIFT 3553) \<in> set ts_parse_actions \<and> 3553 < STATE_COUNT"
proof -
  have "(3, 1, False, [SHIFT 3553]) \<in> set ts_parse_action_groups"
    by (simp add: ts_parse_action_groups_def ts_parse_actions_1_def)
  then have "ACTION (SHIFT 3553) \<in> set ts_parse_actions" unfolding ts_parse_actions_def by force
  with parse_actions_in_bounds [OF this] show ?thesis by simp
qed

text \<open>
  C21. No action is out of the driver's reach. Only the group at index 0, the value of the entries
  that are not there, has no actions; in every other group all actions but the last are reductions,
  after which the next action of the group is carried out.
\<close>

theorem action_groups_ordered:
  assumes "(i, count, reusable, actions) \<in> set ts_parse_action_groups" and "0 < i"
  shows "0 < count \<and>
    (\<forall>j. Suc j < count \<longrightarrow> (\<exists>sy children precedence p.
       ts_parse_actions ! (i + Suc j) = ACTION (REDUCE sy children precedence p)))"
proof -
  note layout = action_group_layout [OF assms(1)]
  from actions_ok_all assms have ok: "reduces_first actions" "actions \<noteq> []"
    by (auto simp: list_all_iff group_ok_def)
  have "\<exists>sy children precedence p. actions ! j = REDUCE sy children precedence p" if "Suc j < count" for j
    using reduces_first_last [OF ok(1), of j] that layout by (cases "actions ! j") auto
  with layout ok(2) show ?thesis by auto
qed

theorem action_groups_ordered_witness:
  "\<exists>sy children precedence p. ts_parse_actions ! 170 = ACTION (REDUCE sy children precedence p)"
proof -
  have "(169, 2, False, [REDUCE sym_switch_statement_case 5 0 0, SHIFT 489]) \<in> set ts_parse_action_groups"
    by (simp add: ts_parse_action_groups_def ts_parse_actions_1_def)
  from action_groups_ordered [OF this] have "\<exists>sy children precedence p.
      ts_parse_actions ! (169 + Suc 0) = ACTION (REDUCE sy children precedence p)"
    by fastforce
  then show ?thesis by simp
qed

end
