(* ===== verification/Lex_Machine.thy ===== *)
theory Lex_Machine
  imports TSLexer
begin

text \<open>
  The lexer macros of \<^verbatim>\<open>tree_sitter/parser.h\<close> (\<^verbatim>\<open>START_LEXER\<close>, \<^verbatim>\<open>ADVANCE\<close>, \<^verbatim>\<open>ADVANCE_MAP\<close>, \<^verbatim>\<open>SKIP\<close>,
  \<^verbatim>\<open>ACCEPT_TOKEN\<close>, \<^verbatim>\<open>END_STATE\<close>) and the control flow they build around the \<^verbatim>\<open>switch\<close> of a generated
  lexer. A lexer is its switch: a partial map from state numbers to case bodies. The locale
  \<open>lex_switch\<close> states what a generated switch promises; inside it the loop is proved to return on
  every input, to compute the word function \<open>lex_word\<close>, and to be a maximal-munch scanner.
\<close>

subsection \<open>The macros\<close>

text \<open>
  What a case body does with \<^verbatim>\<open>goto next_state\<close> (the new state and the \<^verbatim>\<open>skip\<close> flag) or
  \<^verbatim>\<open>return result\<close>.
\<close>

datatype lex_jump = NEXT_STATE TSStateId bool | END_STATE

abbreviation ADVANCE :: "TSStateId \<Rightarrow> lex_jump" where
  "ADVANCE state_value \<equiv> NEXT_STATE state_value False"

abbreviation SKIP :: "TSStateId \<Rightarrow> lex_jump" where
  "SKIP state_value \<equiv> NEXT_STATE state_value True"

text \<open>
  \<^verbatim>\<open>ADVANCE_MAP\<close> walks the static table two entries at a time; the table is a list of pairs here.
  The last argument is what the case body does when no entry matches.
\<close>

primrec ADVANCE_MAP :: "(code_point \<times> TSStateId) list \<Rightarrow> code_point \<Rightarrow> lex_jump \<Rightarrow> lex_jump" where
  "ADVANCE_MAP [] la k = k"
| "ADVANCE_MAP (e # es) la k = (if fst e = la then ADVANCE (snd e) else ADVANCE_MAP es la k)"

text \<open>The table and what follows it are looked at only as far as the lookahead asks for it.\<close>

lemma ADVANCE_MAP_cong [cong]: "la = la' \<Longrightarrow> ADVANCE_MAP es la k = ADVANCE_MAP es la' k"
  by simp

text \<open>
  A case body reads \<^verbatim>\<open>eof\<close> and \<^verbatim>\<open>lookahead\<close>. \<^verbatim>\<open>ACCEPT_TOKEN\<close>, where a body has it, comes before
  every jump, so a body is the accepted symbol, if any, and a jump.
\<close>

type_synonym lex_body = "bool \<Rightarrow> code_point \<Rightarrow> TSSymbol option \<times> lex_jump"
type_synonym lex_cases = "TSStateId \<Rightarrow> lex_body option"

abbreviation ACCEPT_TOKEN :: "TSSymbol \<Rightarrow> lex_jump \<Rightarrow> TSSymbol option \<times> lex_jump" where
  "ACCEPT_TOKEN symbol_value k \<equiv> (Some symbol_value, k)"

abbreviation NO_TOKEN :: "lex_jump \<Rightarrow> TSSymbol option \<times> lex_jump" where
  "NO_TOKEN k \<equiv> (None, k)"

text \<open>The effect of \<^verbatim>\<open>ACCEPT_TOKEN\<close> on \<^verbatim>\<open>result\<close> and on the lexer.\<close>

definition accepted :: "'a option \<Rightarrow> bool" where
  "accepted acc = (case acc of None \<Rightarrow> False | Some _ \<Rightarrow> True)"

lemma accepted_simps [simp]: "\<not> accepted None" "accepted (Some x)"
  by (simp_all add: accepted_def)

definition do_accept ::
  "'p TSLexer_scheme TSLexer_ops \<Rightarrow> TSSymbol option \<Rightarrow> 'p TSLexer_scheme \<Rightarrow> 'p TSLexer_scheme" where
  "do_accept ops acc l =
     (case acc of None \<Rightarrow> l | Some sy \<Rightarrow> mark_end_fn ops (l\<lparr>result_symbol := sy\<rparr>))"

text \<open>
  The loop of a generated lexer from the label \<^verbatim>\<open>start\<close> on: \<^verbatim>\<open>result\<close> and \<^verbatim>\<open>state\<close> are its local
  variables, the returned pair is the C result and the lexer. A state outside the switch takes
  the \<^verbatim>\<open>default\<close> branch, \<^verbatim>\<open>return false\<close>.
\<close>

partial_function (option) lex_loop ::
  "lex_cases \<Rightarrow> 'p TSLexer_scheme TSLexer_ops \<Rightarrow> bool \<Rightarrow> TSStateId \<Rightarrow> 'p TSLexer_scheme
    \<Rightarrow> (bool \<times> 'p TSLexer_scheme) option" where
  "lex_loop sw ops result state l =
     (case sw state of
        None \<Rightarrow> Some (False, l)
      | Some body \<Rightarrow>
          (case body (eof_fn ops l) (lookahead l) of
             (acc, jump) \<Rightarrow>
               (case jump of
                  END_STATE \<Rightarrow> Some (result \<or> accepted acc, do_accept ops acc l)
                | NEXT_STATE state_value skip \<Rightarrow>
                    lex_loop sw ops (result \<or> accepted acc) state_value
                      (advance_fn ops (do_accept ops acc l) skip))))"

subsection \<open>The word function\<close>

text \<open>
  The same computation on a list of code points: \<open>start\<close> is the input from the start of the token
  on, \<open>tok\<close> the last accepted symbol with the input that remained when it was accepted.
\<close>

type_synonym lex_token = "(TSSymbol \<times> code_point list) option"

definition note_token :: "TSSymbol option \<Rightarrow> code_point list \<Rightarrow> lex_token \<Rightarrow> lex_token" where
  "note_token acc inp tok = (case acc of None \<Rightarrow> tok | Some sy \<Rightarrow> Some (sy, inp))"

lemma note_token_simps [simp]:
  "note_token None inp tok = tok" "note_token (Some sy) inp tok = Some (sy, inp)"
  by (simp_all add: note_token_def)

definition accept_of :: "lex_cases \<Rightarrow> TSStateId \<Rightarrow> TSSymbol option" where
  "accept_of sw s = (case sw s of None \<Rightarrow> None | Some b \<Rightarrow> fst (b True 0))"

definition jump_of :: "lex_cases \<Rightarrow> TSStateId \<Rightarrow> bool \<Rightarrow> code_point \<Rightarrow> lex_jump" where
  "jump_of sw s eof la = (case sw s of None \<Rightarrow> END_STATE | Some b \<Rightarrow> snd (b eof la))"

primrec lex_word ::
  "lex_cases \<Rightarrow> code_point list \<Rightarrow> TSStateId \<Rightarrow> code_point list \<Rightarrow> lex_token
    \<Rightarrow> code_point list \<times> lex_token" where
  "lex_word sw [] s start tok =
     (start,
      case jump_of sw s True 0 of
        END_STATE \<Rightarrow> note_token (accept_of sw s) [] tok
      | NEXT_STATE t _ \<Rightarrow> note_token (accept_of sw t) [] (note_token (accept_of sw s) [] tok))"
| "lex_word sw (c # cs) s start tok =
     (case jump_of sw s False c of
        END_STATE \<Rightarrow> (start, note_token (accept_of sw s) (c # cs) tok)
      | NEXT_STATE t skip \<Rightarrow>
          lex_word sw cs t (if skip then cs else start) (note_token (accept_of sw s) (c # cs) tok))"

text \<open>The state after a word, following both kinds of jump; \<open>None\<close> when the loop has stopped.\<close>

primrec lex_path :: "lex_cases \<Rightarrow> code_point list \<Rightarrow> TSStateId \<Rightarrow> TSStateId option" where
  "lex_path sw [] s = Some s"
| "lex_path sw (c # w) s =
     (case jump_of sw s False c of END_STATE \<Rightarrow> None | NEXT_STATE t _ \<Rightarrow> lex_path sw w t)"

text \<open>
  \<open>munches sw s w e sy\<close>: from state \<open>s\<close> on the input \<open>w @ e\<close>, the word \<open>w\<close> leads to a state that
  accepts \<open>sy\<close>, and no longer prefix of the input leads to an accepting state.
\<close>

definition munches ::
  "lex_cases \<Rightarrow> TSStateId \<Rightarrow> code_point list \<Rightarrow> code_point list \<Rightarrow> TSSymbol \<Rightarrow> bool" where
  "munches sw s w e sy \<longleftrightarrow>
     (\<exists>t. lex_path sw w s = Some t \<and> accept_of sw t = Some sy) \<and>
     (\<forall>v t. v \<noteq> [] \<longrightarrow> prefix v e \<longrightarrow> lex_path sw (w @ v) s = Some t \<longrightarrow> accept_of sw t = None)"

text \<open>
  At the end of the input a lexer may step once more and accept (the end-of-file token).
\<close>

definition eof_accepts :: "lex_cases \<Rightarrow> TSStateId \<Rightarrow> code_point list \<Rightarrow> TSSymbol \<Rightarrow> bool" where
  "eof_accepts sw s inp sy \<longleftrightarrow>
     (\<exists>t u skip. lex_path sw inp s = Some t \<and> jump_of sw t True 0 = NEXT_STATE u skip \<and>
        accept_of sw u = Some sy)"

lemma munches_Cons:
  "jump_of sw s False c = NEXT_STATE t skip \<Longrightarrow> munches sw t w e sy \<Longrightarrow> munches sw s (c # w) e sy"
  by (auto simp: munches_def)

lemma munches_Nil:
  assumes "accept_of sw s = Some sy"
    and "\<And>c cs t skip v u. e = c # cs \<Longrightarrow> jump_of sw s False c = NEXT_STATE t skip \<Longrightarrow>
      prefix v cs \<Longrightarrow> lex_path sw v t = Some u \<Longrightarrow> accept_of sw u = None"
  shows "munches sw s [] e sy"
  using assms
  by (cases e) (auto simp: munches_def neq_Nil_conv split: lex_jump.splits)

text \<open>A token accepted later replaces the one noted before, and nothing else depends on it.\<close>

lemma lex_word_tok:
  "lex_word sw inp s start tok =
     apsnd (\<lambda>tok'. if tok' = None then tok else tok') (lex_word sw inp s start None)"
proof (induction inp arbitrary: s start tok)
  case Nil
  show ?case by (simp add: note_token_def split: lex_jump.split option.split)
next
  case (Cons c cs)
  show ?case
  proof (cases "jump_of sw s False c")
    case END_STATE
    then show ?thesis by (simp add: note_token_def split: option.split)
  next
    case (NEXT_STATE t skip)
    let ?st = "if skip then cs else start"
    show ?thesis
    proof (cases "accept_of sw s")
      case None
      with NEXT_STATE Cons.IH [of t ?st tok] show ?thesis by simp
    next
      case (Some sy)
      with NEXT_STATE Cons.IH [of t ?st "Some (sy, c # cs)"] show ?thesis
        by (cases "lex_word sw cs t ?st None") auto
    qed
  qed
qed

lemma lex_word_munch:
  assumes "lex_word sw inp s start None = (st, tok)"
  shows "case tok of
      None \<Rightarrow> \<forall>w t. prefix w inp \<longrightarrow> lex_path sw w s = Some t \<longrightarrow> accept_of sw t = None
    | Some (sy, e) \<Rightarrow> (\<exists>w. inp = w @ e \<and> munches sw s w e sy) \<or> e = [] \<and> eof_accepts sw s inp sy"
  using assms
proof (induction inp arbitrary: s start st tok)
  case Nil
  then show ?case
    by (auto simp: munches_def eof_accepts_def note_token_def split: lex_jump.splits option.splits)
next
  case (Cons c cs)
  show ?case
  proof (cases "jump_of sw s False c")
    case END_STATE
    with Cons.prems show ?thesis
      by (cases "accept_of sw s") (auto simp: note_token_def prefix_Cons intro!: munches_Nil)
  next
    case (NEXT_STATE t skip)
    obtain st0 tok0 where w0: "lex_word sw cs t (if skip then cs else start) None = (st0, tok0)"
      by (cases "lex_word sw cs t (if skip then cs else start) None")
    have tok: "tok = (if tok0 = None then note_token (accept_of sw s) (c # cs) None else tok0)"
      using Cons.prems NEXT_STATE w0
        lex_word_tok [of sw cs t "if skip then cs else start" "note_token (accept_of sw s) (c # cs) None"]
      by simp
    note IH = Cons.IH [OF w0]
    show ?thesis
    proof (cases tok0)
      case (Some x)
      obtain sy e where x: "x = (sy, e)" by (cases x)
      from IH Some x have "(\<exists>w. cs = w @ e \<and> munches sw t w e sy) \<or> e = [] \<and> eof_accepts sw t cs sy"
        by simp
      then show ?thesis
        using NEXT_STATE munches_Cons [OF NEXT_STATE] Some x tok
        by (fastforce simp: eof_accepts_def Cons_eq_append_conv)
    next
      case None
      with IH have none: "\<And>w u. prefix w cs \<Longrightarrow> lex_path sw w t = Some u \<Longrightarrow> accept_of sw u = None"
        by simp
      show ?thesis
      proof (cases "accept_of sw s")
        case None
        with tok NEXT_STATE \<open>tok0 = None\<close> none show ?thesis by (auto simp: prefix_Cons)
      next
        case (Some sy)
        have "munches sw s [] (c # cs) sy"
          using Some none NEXT_STATE by (auto intro!: munches_Nil)
        with Some tok \<open>tok0 = None\<close> show ?thesis by auto
      qed
    qed
  qed
qed

subsection \<open>What a generated switch promises\<close>

text \<open>
  Jumps stay inside the switch; whether a state accepts does not depend on the lookahead; at the
  end of the input (\<^verbatim>\<open>eof\<close>, lookahead 0) a state stops or advances, without \<^verbatim>\<open>skip\<close>, to a state
  that stops there. The last law is what makes the loop end: at the end of the input \<^verbatim>\<open>advance\<close>
  no longer consumes anything.
\<close>

locale lex_switch =
  fixes sw :: lex_cases
  assumes closed: "sw s = Some b \<Longrightarrow> snd (b eof la) = NEXT_STATE t skip \<Longrightarrow> sw t \<noteq> None"
    and accept_fixed: "sw s = Some b \<Longrightarrow> fst (b eof la) = fst (b True 0)"
    and eof_stops: "sw s = Some b \<Longrightarrow> snd (b True 0) = NEXT_STATE t skip \<Longrightarrow>
      sw t = Some b' \<Longrightarrow> snd (b' True 0) = END_STATE"
    and eof_no_skip: "sw s = Some b \<Longrightarrow> snd (b True 0) = NEXT_STATE t skip \<Longrightarrow> \<not> skip"
begin

lemma body_eq:
  assumes "sw s = Some b"
  shows "b eof la = (accept_of sw s, jump_of sw s eof la)"
  using assms accept_fixed [OF assms, of eof la]
  by (simp add: accept_of_def jump_of_def prod_eq_iff)

lemma jump_closed: "sw s \<noteq> None \<Longrightarrow> jump_of sw s eof la = NEXT_STATE t skip \<Longrightarrow> sw t \<noteq> None"
  using closed by (auto simp: jump_of_def)

lemma jump_eof_stops:
  assumes s: "sw s \<noteq> None" and t: "jump_of sw s True 0 = NEXT_STATE t skip"
  shows "jump_of sw t True 0 = END_STATE" and "\<not> skip"
proof -
  from s obtain b where b: "sw s = Some b" by blast
  with t have j: "snd (b True 0) = NEXT_STATE t skip" by (simp add: jump_of_def)
  show ns: "\<not> skip" using eof_no_skip [OF b j] .
  from jump_closed [OF s t] obtain b' where "sw t = Some b'" by blast
  with eof_stops [OF b j, of b'] show "jump_of sw t True 0 = END_STATE"
    by (simp add: jump_of_def)
qed

text \<open>The loop unfolds to \<open>accept_of\<close> and \<open>jump_of\<close>.\<close>

lemma lex_loop_unfold:
  assumes "sw s \<noteq> None"
  shows "lex_loop sw ops result s l =
    (case jump_of sw s (eof_fn ops l) (lookahead l) of
       END_STATE \<Rightarrow> Some (result \<or> accepted (accept_of sw s), do_accept ops (accept_of sw s) l)
     | NEXT_STATE t skip \<Rightarrow>
         lex_loop sw ops (result \<or> accepted (accept_of sw s)) t
           (advance_fn ops (do_accept ops (accept_of sw s) l) skip))"
proof -
  from assms obtain b where b: "sw s = Some b" by blast
  show ?thesis
    by (subst lex_loop.simps) (simp add: b body_eq [OF b] split: lex_jump.split)
qed

end

subsection \<open>Checking a switch case by case\<close>

text \<open>
  The switch of a generated lexer is an association list. Its laws follow from a check of each
  case: \<open>jump_all P j\<close> says that the target and the skip flag of the jump, if there is one,
  satisfy \<open>P\<close>; \<open>case_ok n stop\<close> collects what \<open>lex_switch\<close> asks of one case of a switch with the
  states below \<open>n\<close> in which the states of \<open>stop\<close> stop at the end of the input.
\<close>

definition jump_all :: "(TSStateId \<Rightarrow> bool \<Rightarrow> bool) \<Rightarrow> lex_jump \<Rightarrow> bool" where
  "jump_all P j = (case j of END_STATE \<Rightarrow> True | NEXT_STATE t skip \<Rightarrow> P t skip)"

lemma jump_all_simps [simp]:
  "jump_all P END_STATE"
  "jump_all P (NEXT_STATE t skip) = P t skip"
  "jump_all P (if b then j else k) \<longleftrightarrow> (b \<longrightarrow> jump_all P j) \<and> (\<not> b \<longrightarrow> jump_all P k)"
  by (simp_all add: jump_all_def)

definition case_ok :: "nat \<Rightarrow> TSStateId list \<Rightarrow> lex_body \<Rightarrow> bool" where
  "case_ok n stop b \<longleftrightarrow>
     (\<forall>eof la. fst (b eof la) = fst (b True 0) \<and> jump_all (\<lambda>t _. t < n) (snd (b eof la))) \<and>
     jump_all (\<lambda>t skip. \<not> skip \<and> t \<in> set stop) (snd (b True 0))"

definition stops_at_eof :: "(TSStateId \<times> lex_body) list \<Rightarrow> TSStateId \<Rightarrow> bool" where
  "stops_at_eof cs t =
     (case map_of cs t of None \<Rightarrow> True | Some b \<Rightarrow> snd (b True 0) = END_STATE)"

lemma lex_switchI:
  assumes keys: "map fst cs = [0..<n]" and cs: "list_all (\<lambda>(s, b). case_ok n stop b) cs"
    and stop: "list_all (stops_at_eof cs) stop"
  shows "lex_switch (map_of cs)"
proof
  fix s b eof la t skip b'
  assume s: "map_of cs s = Some b"
  from map_of_list_all [OF cs s] have ok: "case_ok n stop b" .
  then show "fst (b eof la) = fst (b True 0)" by (auto simp: case_ok_def)
  from ok have "jump_all (\<lambda>t _. t < n) (snd (b eof la))" by (simp add: case_ok_def)
  then show "map_of cs t \<noteq> None" if "snd (b eof la) = NEXT_STATE t skip"
    using that map_of_upt_keys [OF keys] by simp
  from ok have eof: "jump_all (\<lambda>t skip. \<not> skip \<and> t \<in> set stop) (snd (b True 0))"
    by (simp add: case_ok_def)
  then show "\<not> skip" if "snd (b True 0) = NEXT_STATE t skip" using that by simp
  show "snd (b' True 0) = END_STATE"
    if "snd (b True 0) = NEXT_STATE t skip" "map_of cs t = Some b'"
    using that eof stop by (auto simp: list_all_iff stops_at_eof_def)
qed

lemma jump_of_map_of: "map_of cs s = Some b \<Longrightarrow> jump_of (map_of cs) s eof la = snd (b eof la)"
  by (simp add: jump_of_def)

lemma accept_of_map_of: "map_of cs s = Some b \<Longrightarrow> accept_of (map_of cs) s = fst (b True 0)"
  by (simp add: accept_of_def)

subsection \<open>The loop computes the word function\<close>

text \<open>
  \<open>records mark l tok l'\<close>: the lexer \<open>l'\<close> holds the token \<open>tok\<close>, or, where there is none, its
  result symbol and its mark are still those of \<open>l\<close>.
\<close>

definition records ::
  "('p TSLexer_scheme \<Rightarrow> code_point list option) \<Rightarrow> 'p TSLexer_scheme \<Rightarrow> lex_token
    \<Rightarrow> 'p TSLexer_scheme \<Rightarrow> bool" where
  "records mark l tok l' \<longleftrightarrow>
     (case tok of
        None \<Rightarrow> result_symbol l' = result_symbol l \<and> mark l' = mark l
      | Some (sy, e) \<Rightarrow> result_symbol l' = sy \<and> mark l' = Some e)"

lemma accepted_note_token [simp]:
  "accepted (note_token acc inp tok) \<longleftrightarrow> accepted tok \<or> accepted acc"
  by (simp add: note_token_def split: option.split)

text \<open>
  The client of both interfaces: a generated switch run by a lexer that obeys the runtime's laws.
\<close>

locale lex_client = tslexer ops valid rest start mark + lex_switch sw
  for ops :: "'p TSLexer_scheme TSLexer_ops" and valid rest start mark and sw :: lex_cases
begin

lemma do_accept_simps [simp]:
  assumes "valid l"
  shows "valid (do_accept ops acc l)" and "rest (do_accept ops acc l) = rest l"
    and "start (do_accept ops acc l) = start l"
  using assms by (simp_all add: do_accept_def split: option.split)

lemma records_accept:
  "valid l' \<Longrightarrow> records mark l tok l' \<Longrightarrow> records mark l (note_token acc (rest l') tok) (do_accept ops acc l')"
  by (auto simp: records_def do_accept_def split: option.splits)

lemma records_advance:
  "valid l' \<Longrightarrow> records mark l tok l' \<Longrightarrow> records mark l tok (advance_fn ops l' skip)"
  by (auto simp: records_def split: option.splits)

lemma lex_loop_word:
  assumes "valid l" and "records mark l0 tok l" and "sw s \<noteq> None"
    and "lex_word sw (rest l) s (start l) tok = (st, tok')"
  shows "\<exists>l'. lex_loop sw ops (accepted tok) s l = Some (accepted tok', l') \<and> valid l' \<and>
      start l' = st \<and> records mark l0 tok' l'"
  using assms
proof (induction "rest l" arbitrary: l s tok)
  case Nil
  let ?l = "do_accept ops (accept_of sw s) l" and ?tok = "note_token (accept_of sw s) [] tok"
  from Nil have eof: "eof_fn ops l" "lookahead l = 0" by (simp_all add: eof_rest lookahead_rest)
  have rec: "records mark l0 ?tok ?l" using records_accept [OF Nil.prems(1,2)] Nil.hyps by simp
  show ?case
  proof (cases "jump_of sw s True 0")
    case END_STATE
    with Nil eof rec show ?thesis
      by (auto simp: lex_loop_unfold simp flip: Nil.hyps)
  next
    case (NEXT_STATE t skip)
    let ?l1 = "advance_fn ops ?l skip"
    from jump_eof_stops [OF Nil.prems(3) NEXT_STATE] jump_closed [OF Nil.prems(3) NEXT_STATE]
    have t: "jump_of sw t True 0 = END_STATE" "\<not> skip" "sw t \<noteq> None" by auto
    have v: "valid ?l1" "rest ?l1 = []" "start ?l1 = start l"
      using Nil t by (simp_all flip: Nil.hyps)
    have "records mark l0 (note_token (accept_of sw t) [] ?tok) (do_accept ops (accept_of sw t) ?l1)"
      using records_accept [OF v(1) records_advance [OF _ rec]] Nil v by simp
    with Nil.prems eof NEXT_STATE t v show ?thesis
      by (auto simp: lex_loop_unfold eof_rest lookahead_rest simp flip: Nil.hyps)
  qed
next
  case (Cons c cs)
  let ?l = "do_accept ops (accept_of sw s) l" and ?tok = "note_token (accept_of sw s) (c # cs) tok"
  from Cons have la: "\<not> eof_fn ops l" "lookahead l = c"
    by (simp_all add: eof_rest lookahead_rest flip: Cons.hyps(2))
  have rec: "records mark l0 ?tok ?l" using records_accept [OF Cons.prems(1,2)] Cons.hyps(2) by simp
  show ?case
  proof (cases "jump_of sw s False c")
    case END_STATE
    with Cons.prems la rec show ?thesis
      by (auto simp: lex_loop_unfold simp flip: Cons.hyps(2))
  next
    case (NEXT_STATE t skip)
    let ?l1 = "advance_fn ops ?l skip"
    have v: "valid ?l1" "rest ?l1 = cs" "start ?l1 = (if skip then cs else start l)"
      using Cons.prems(1) by (simp_all flip: Cons.hyps(2))
    have "\<exists>l'. lex_loop sw ops (accepted ?tok) t ?l1 = Some (accepted tok', l') \<and> valid l' \<and>
        start l' = st \<and> records mark l0 tok' l'"
    proof (rule Cons.hyps(1))
      show "cs = rest ?l1" "valid ?l1" using v by simp_all
      show "records mark l0 ?tok ?l1" using records_advance [OF _ rec] Cons.prems(1) by simp
      show "sw t \<noteq> None" using jump_closed [OF Cons.prems(3) NEXT_STATE] .
      show "lex_word sw (rest ?l1) t (start ?l1) ?tok = (st, tok')"
        using Cons.prems(4) NEXT_STATE v by (simp flip: Cons.hyps(2))
    qed
    with Cons.prems(3) NEXT_STATE la show ?thesis
      by (simp add: lex_loop_unfold )
  qed
qed

end

end
