(* ===== verification/Lexemes.thy ===== *)
theory Lexemes
  imports Lex_Machine
begin

text \<open>
  Two interfaces of a generated switch on top of \<open>lex_switch\<close>, each with what follows from it:
  \<open>lexeme_switch\<close>, an invariant on the text that can lead to a state, from which the text of every
  token the lexer returns satisfies the token's description; and \<open>trie_switch\<close>, a residual word
  list for every state, from which the lexer finds the longest word of the list.
\<close>

subsection \<open>The text of a token\<close>

text \<open>
  \<open>reach s w\<close> over-approximates "state \<open>s\<close> can be reached with the text \<open>w\<close> since the start of the
  token"; \<open>lexeme sy w\<close> is what a token \<open>sy\<close> may look like. White space is skipped only at the
  start of a token, before anything is accepted.
\<close>

locale lexeme_switch = lex_switch sw
  for sw :: lex_cases +
  fixes reach :: "TSStateId \<Rightarrow> code_point list \<Rightarrow> bool"
    and lexeme :: "TSSymbol \<Rightarrow> code_point list \<Rightarrow> bool"
    and eof_state :: TSStateId
  assumes reach_advance: "reach s w \<Longrightarrow> jump_of sw s False c = NEXT_STATE t False \<Longrightarrow> reach t (w @ [c])"
    and reach_skip: "reach s w \<Longrightarrow> jump_of sw s False c = NEXT_STATE t True \<Longrightarrow>
      w = [] \<and> is_blank c \<and> accept_of sw s = None \<and> reach t []"
    and reach_eof: "reach s w \<Longrightarrow> jump_of sw s True 0 = NEXT_STATE t skip \<Longrightarrow>
      w = [] \<and> t = eof_state \<and> accept_of sw s = None"
    and reach_accept: "reach s w \<Longrightarrow> accept_of sw s = Some sy \<Longrightarrow> lexeme sy w"
    and eof_accept: "accept_of sw eof_state = Some ts_builtin_sym_end"
begin

text \<open>
  The token noted so far, if any, is a lexeme at the front of \<open>txt\<close>, or the end of the input.
\<close>

definition tok_ok :: "code_point list \<Rightarrow> lex_token \<Rightarrow> bool" where
  "tok_ok txt tok =
     (\<forall>sy e. tok = Some (sy, e) \<longrightarrow>
        (\<exists>v. txt = v @ e \<and> lexeme sy v) \<or> sy = ts_builtin_sym_end \<and> txt = [] \<and> e = [])"

lemma tok_ok_None: "tok_ok txt None"
  by (simp add: tok_ok_def)

lemma tok_ok_note:
  assumes "reach s w" and "tok_ok (w @ inp) tok"
  shows "tok_ok (w @ inp) (note_token (accept_of sw s) inp tok)"
  using assms reach_accept [OF assms(1)]
  by (auto simp: tok_ok_def note_token_def split: option.splits)

lemma lex_word_lexeme:
  assumes "reach s w" and "tok_ok (w @ inp) tok" and "tok \<noteq> None \<Longrightarrow> w \<noteq> []"
    and "lex_word sw inp s (w @ inp) tok = (st, tok')"
  shows "\<exists>b. list_all is_blank b \<and> w @ inp = b @ st \<and> tok_ok st tok'"
  using assms
proof (induction inp arbitrary: s w tok)
  case Nil
  have nt: "tok_ok w (note_token (accept_of sw s) [] tok)"
    using tok_ok_note [OF Nil.prems(1), of "[]"] Nil.prems(2) by simp
  show ?case
  proof (cases "jump_of sw s True 0")
    case END_STATE
    with Nil.prems(4) nt show ?thesis by auto
  next
    case (NEXT_STATE t skip)
    with reach_eof [OF Nil.prems(1) NEXT_STATE] Nil.prems(3,4) show ?thesis
      by (auto simp: tok_ok_def eof_accept)
  qed
next
  case (Cons c cs)
  note nt = tok_ok_note [OF Cons.prems(1,2)]
  show ?case
  proof (cases "jump_of sw s False c")
    case END_STATE
    with Cons.prems(4) nt show ?thesis by auto
  next
    case (NEXT_STATE t skip)
    show ?thesis
    proof (cases skip)
      case True
      with reach_skip [OF Cons.prems(1)] NEXT_STATE
      have s: "w = []" "is_blank c" "accept_of sw s = None" "reach t []" by auto
      moreover from \<open>w = []\<close> Cons.prems(3) have "tok = None" by blast
      ultimately obtain b where "list_all is_blank b" "cs = b @ st" "tok_ok st tok'"
        using Cons.prems(4) NEXT_STATE True Cons.IH [of t "[]" None] by (auto simp: tok_ok_None)
      with s show ?thesis by (intro exI [of _ "c # b"]) simp
    next
      case False
      with reach_advance [OF Cons.prems(1)] NEXT_STATE have "reach t (w @ [c])" by simp
      from Cons.IH [OF this] nt Cons.prems(4) NEXT_STATE False show ?thesis by simp
    qed
  qed
qed

lemmas lex_word_start = lex_word_lexeme [of _ "[]" _ None, simplified]

end

text \<open>The same laws as a check of one case.\<close>

definition lexeme_ok ::
  "(TSStateId \<Rightarrow> code_point list \<Rightarrow> bool) \<Rightarrow> (TSSymbol \<Rightarrow> code_point list \<Rightarrow> bool)
    \<Rightarrow> TSStateId \<Rightarrow> TSStateId \<Rightarrow> lex_body \<Rightarrow> bool" where
  "lexeme_ok reach lexeme eof_state s b \<longleftrightarrow>
     (\<forall>w. reach s w \<longrightarrow>
        (case fst (b True 0) of None \<Rightarrow> True | Some sy \<Rightarrow> lexeme sy w) \<and>
        (\<forall>c. jump_all (\<lambda>t skip. if skip then w = [] \<and> is_blank c \<and> fst (b True 0) = None \<and> reach t []
                              else reach t (w @ [c])) (snd (b False c))) \<and>
        jump_all (\<lambda>t skip. w = [] \<and> t = eof_state \<and> fst (b True 0) = None) (snd (b True 0)))"

lemma lexeme_switchI:
  assumes sw: "lex_switch (map_of cs)"
    and cs: "list_all (\<lambda>(s, b). lexeme_ok reach lexeme eof_state s b) cs"
    and reach: "\<And>s w. reach s w \<Longrightarrow> map_of cs s \<noteq> None"
    and eof: "accept_of (map_of cs) eof_state = Some ts_builtin_sym_end"
  shows "lexeme_switch (map_of cs) reach lexeme eof_state"
proof (rule lexeme_switch.intro [OF sw], rule lexeme_switch_axioms.intro)
  fix s w c t skip sy
  assume w: "reach s w"
  from reach [OF w] obtain b where s: "map_of cs s = Some b" by blast
  from map_of_list_all [OF cs s] have ok: "lexeme_ok reach lexeme eof_state s b" .
  note j = jump_of_map_of [OF s] and a = accept_of_map_of [OF s]
  from ok w have c: "jump_all (\<lambda>t skip. if skip
      then w = [] \<and> is_blank c \<and> fst (b True 0) = None \<and> reach t []
      else reach t (w @ [c])) (snd (b False c))"
    by (simp add: lexeme_ok_def)
  then show "reach t (w @ [c])" if "jump_of (map_of cs) s False c = NEXT_STATE t False"
    using that by (simp add: j)
  from c show "w = [] \<and> is_blank c \<and> accept_of (map_of cs) s = None \<and> reach t []"
    if "jump_of (map_of cs) s False c = NEXT_STATE t True"
    using that by (simp add: j a)
  from ok w show "w = [] \<and> t = eof_state \<and> accept_of (map_of cs) s = None"
    if "jump_of (map_of cs) s True 0 = NEXT_STATE t skip"
    using that by (simp add: j a lexeme_ok_def)
  from ok w show "lexeme sy w" if "accept_of (map_of cs) s = Some sy"
    using that by (simp add: a lexeme_ok_def)
qed (rule eof)

subsection \<open>Word lists\<close>

text \<open>
  The residual of a word list after one code point, and the symbol of the empty word in it.
\<close>

type_synonym word_list = "(string \<times> TSSymbol) list"

fun residual :: "code_point \<Rightarrow> word_list \<Rightarrow> word_list" where
  "residual c [] = []"
| "residual c (([], sy) # ws) = residual c ws"
| "residual c ((a # w, sy) # ws) = (if c = CH a then [(w, sy)] else []) @ residual c ws"

definition empty_symbol :: "word_list \<Rightarrow> TSSymbol option" where
  "empty_symbol ws = map_of ws []"

text \<open>
  The longest word of a list at the front of an input: the symbol and the input after it.
\<close>

primrec longest_word :: "code_point list \<Rightarrow> word_list \<Rightarrow> lex_token" where
  "longest_word [] ws = note_token (empty_symbol ws) [] None"
| "longest_word (c # cs) ws =
     (case longest_word cs (residual c ws) of
        None \<Rightarrow> note_token (empty_symbol ws) (c # cs) None
      | Some tok \<Rightarrow> Some tok)"

lemma map_of_residual [simp]: "map_of (residual (CH a) ws) w = map_of ws (a # w)"
  by (induction "CH a" ws rule: residual.induct) auto

lemma residual_other: "(\<And>a. c \<noteq> CH a) \<Longrightarrow> residual c ws = []"
  by (induction c ws rule: residual.induct) auto

lemma longest_word_Nil [simp]: "longest_word inp [] = None"
  by (induction inp) (simp_all add: empty_symbol_def)

text \<open>\<open>longest_word\<close> is what its name says.\<close>

lemma longest_word_None:
  "longest_word inp ws = None \<Longrightarrow> map_of ws w = Some sy \<Longrightarrow> \<not> prefix (codes w) inp"
proof (induction inp arbitrary: ws w)
  case Nil
  then show ?case
    by (cases w) (auto simp: empty_symbol_def note_token_def split: option.splits)
next
  case (Cons c cs)
  then show ?case
    by (cases w) (auto simp: empty_symbol_def note_token_def split: option.splits)
qed

lemma longest_word_Some:
  assumes "longest_word inp ws = Some (sy, e)"
  shows "\<exists>w. map_of ws w = Some sy \<and> inp = codes w @ e \<and>
    (\<forall>w' sy'. map_of ws w' = Some sy' \<longrightarrow> prefix (codes w') inp \<longrightarrow> length w' \<le> length w)"
  using assms
proof (induction inp arbitrary: ws)
  case Nil
  then show ?case
    by (auto simp: empty_symbol_def note_token_def split: option.splits)
next
  case (Cons c cs)
  show ?case
  proof (cases "longest_word cs (residual c ws)")
    case None
    with Cons.prems have "map_of ws [] = Some sy" "e = c # cs"
      by (auto simp: empty_symbol_def note_token_def split: option.splits)
    moreover have "w' = []" if "map_of ws w' = Some sy'" "prefix (codes w') (c # cs)" for w' sy'
      using that longest_word_None [OF None] by (cases w') auto
    ultimately show ?thesis by (intro exI [of _ "[]"]) auto
  next
    case (Some tok)
    with Cons.prems have tok: "longest_word cs (residual c ws) = Some (sy, e)" by simp
    have "residual c ws \<noteq> []" using tok by auto
    then obtain a where a: "c = CH a" using residual_other by blast
    from Cons.IH [OF tok] obtain w where w: "map_of ws (a # w) = Some sy" "cs = codes w @ e"
      "\<And>w' sy'. map_of ws (a # w') = Some sy' \<Longrightarrow> prefix (codes w') cs \<Longrightarrow> length w' \<le> length w"
      unfolding a by auto
    have "length w' \<le> length (a # w)" if "map_of ws w' = Some sy'" "prefix (codes w') (c # cs)" for w' sy'
      using that w(3) a by (cases w') auto
    with w(1,2) a show ?thesis by (intro exI [of _ "a # w"]) auto
  qed
qed

text \<open>A word of the list, alone, is found.\<close>

lemma longest_word_self:
  assumes "map_of ws w = Some sy"
  shows "longest_word (codes w) ws = Some (sy, [])"
proof (cases "longest_word (codes w) ws")
  case None
  from longest_word_None [OF None assms] show ?thesis by simp
next
  case (Some tok)
  obtain sy' e where tok: "tok = (sy', e)" by (cases tok)
  from longest_word_Some [of "codes w" ws sy' e] Some tok obtain w' where
    w': "map_of ws w' = Some sy'" "codes w = codes w' @ e" "length w \<le> length w'"
    using assms by blast
  from arg_cong [OF w'(2), of length] w'(3) have "e = []" by simp
  with w'(1,2) assms Some tok show ?thesis by simp
qed

subsection \<open>A switch that is a trie\<close>

text \<open>
  \<open>words s\<close> is the word list a state still has to match. Every state but the first, which also
  skips white space, accepts the empty word of its list and steps to the residual of its list.
\<close>

locale trie_switch = lex_switch sw
  for sw :: lex_cases +
  fixes words :: "TSStateId \<Rightarrow> word_list"
    and root :: TSStateId
  assumes accept_words: "sw s \<noteq> None \<Longrightarrow> accept_of sw s = empty_symbol (words s)"
    and jump_words: "sw s \<noteq> None \<Longrightarrow> jump_of sw s False c = NEXT_STATE t False \<Longrightarrow>
      t \<noteq> root \<and> words t = residual c (words s)"
    and jump_end: "sw s \<noteq> None \<Longrightarrow> jump_of sw s False c = END_STATE \<Longrightarrow> residual c (words s) = []"
    and jump_skip: "sw s \<noteq> None \<Longrightarrow> jump_of sw s False c = NEXT_STATE t True \<longleftrightarrow>
      s = root \<and> t = root \<and> is_blank c"
    and jump_eof: "sw s \<noteq> None \<Longrightarrow> jump_of sw s True 0 = END_STATE"
    and root_sw: "sw root \<noteq> None"
    and root_words: "empty_symbol (words root) = None"
begin

lemma lex_word_inner:
  assumes "sw s \<noteq> None" and "s \<noteq> root"
  shows "lex_word sw inp s start tok =
    (start, if longest_word inp (words s) = None then tok else longest_word inp (words s))"
  using assms
proof (induction inp arbitrary: s tok)
  case Nil
  then show ?case by (simp add: jump_eof accept_words note_token_def split: option.split)
next
  case (Cons c cs)
  show ?case
  proof (cases "jump_of sw s False c")
    case END_STATE
    with Cons.prems jump_end [OF Cons.prems(1) END_STATE] show ?thesis
      by (simp add: accept_words note_token_def split: option.split)
  next
    case (NEXT_STATE t skip)
    have "\<not> skip" using jump_skip [OF Cons.prems(1)] NEXT_STATE Cons.prems(2) by (cases skip) auto
    with NEXT_STATE jump_words [OF Cons.prems(1)] have "t \<noteq> root" "words t = residual c (words s)"
      by auto
    with Cons.IH [OF jump_closed [OF Cons.prems(1) NEXT_STATE]] NEXT_STATE \<open>\<not> skip\<close> Cons.prems(1)
    show ?thesis by (auto simp: accept_words note_token_def split: option.splits)
  qed
qed

text \<open>From the root: white space is skipped, then the longest word is found.\<close>

lemma lex_word_root:
  "lex_word sw inp root inp None =
     (dropWhile is_blank inp, longest_word (dropWhile is_blank inp) (words root))"
proof (induction inp)
  case Nil
  show ?case by (simp add: jump_eof accept_words root_sw root_words)
next
  case (Cons c cs)
  show ?case
  proof (cases "jump_of sw root False c")
    case END_STATE
    with jump_skip [OF root_sw, of c root] have "\<not> is_blank c" by simp
    with END_STATE jump_end [OF root_sw END_STATE] show ?thesis
      by (simp add: accept_words root_sw root_words)
  next
    case (NEXT_STATE t skip)
    show ?thesis
    proof (cases skip)
      case True
      with NEXT_STATE jump_skip [OF root_sw, of c t] have "is_blank c" "t = root" by auto
      with Cons.IH NEXT_STATE True show ?thesis by (simp add: accept_words root_sw root_words)
    next
      case False
      with NEXT_STATE jump_words [OF root_sw] have t: "t \<noteq> root" "words t = residual c (words root)"
        by auto
      have "\<not> is_blank c" using NEXT_STATE False jump_skip [OF root_sw, of c root] by auto
      with lex_word_inner [OF jump_closed [OF root_sw NEXT_STATE] t(1)] NEXT_STATE False t show ?thesis
        by (simp add: accept_words root_sw root_words split: option.split)
    qed
  qed
qed

end

text \<open>The same laws as a check of one case; the root is state 0.\<close>

definition trie_ok :: "(TSStateId \<Rightarrow> word_list) \<Rightarrow> TSStateId \<Rightarrow> lex_body \<Rightarrow> bool" where
  "trie_ok words s b \<longleftrightarrow>
     fst (b True 0) = empty_symbol (words s) \<and> snd (b True 0) = END_STATE \<and>
     (\<forall>c. case snd (b False c) of
        END_STATE \<Rightarrow> residual c (words s) = [] \<and> \<not> (s = 0 \<and> is_blank c)
      | NEXT_STATE t skip \<Rightarrow>
          if skip then s = 0 \<and> t = 0 \<and> is_blank c
          else t \<noteq> 0 \<and> words t = residual c (words s) \<and> \<not> (s = 0 \<and> is_blank c))"

lemma case_jump_if [simp]:
  "(case (if b then j else k) of NEXT_STATE t skip \<Rightarrow> f t skip | END_STATE \<Rightarrow> e) =
     (if b then (case j of NEXT_STATE t skip \<Rightarrow> f t skip | END_STATE \<Rightarrow> e)
      else (case k of NEXT_STATE t skip \<Rightarrow> f t skip | END_STATE \<Rightarrow> e))"
  by simp

lemma trie_switchI:
  assumes sw: "lex_switch (map_of cs)" and cs: "list_all (\<lambda>(s, b). trie_ok words s b) cs"
    and root: "map_of cs 0 \<noteq> None" "empty_symbol (words 0) = None"
  shows "trie_switch (map_of cs) words 0"
proof (rule trie_switch.intro [OF sw], rule trie_switch_axioms.intro)
  fix s c t
  assume "map_of cs s \<noteq> None"
  then obtain b where s: "map_of cs s = Some b" by blast
  from map_of_list_all [OF cs s] have ok: "trie_ok words s b" .
  note j = jump_of_map_of [OF s]
  from ok show "accept_of (map_of cs) s = empty_symbol (words s)"
    by (simp add: accept_of_map_of [OF s] trie_ok_def)
  from ok show "jump_of (map_of cs) s True 0 = END_STATE" by (simp add: j trie_ok_def)
  from ok have c: "case snd (b False c) of
        END_STATE \<Rightarrow> residual c (words s) = [] \<and> \<not> (s = 0 \<and> is_blank c)
      | NEXT_STATE t skip \<Rightarrow>
          if skip then s = 0 \<and> t = 0 \<and> is_blank c
          else t \<noteq> 0 \<and> words t = residual c (words s) \<and> \<not> (s = 0 \<and> is_blank c)"
    by (simp add: trie_ok_def)
  from c show "t \<noteq> 0 \<and> words t = residual c (words s)"
    if "jump_of (map_of cs) s False c = NEXT_STATE t False" using that by (simp add: j)
  from c show "residual c (words s) = []" if "jump_of (map_of cs) s False c = END_STATE"
    using that by (simp add: j)
  from c show "jump_of (map_of cs) s False c = NEXT_STATE t True \<longleftrightarrow> s = 0 \<and> t = 0 \<and> is_blank c"
    by (auto simp: j split: lex_jump.splits if_splits)
qed (use root in auto)

end
