(* ===== verification/C_Chars.thy ===== *)
theory C_Chars
  imports Prelude
begin

text \<open>
  The C character constants the scanner and the lexers compare the lookahead with, by name
  (punctuation is named as in the generated symbol names), and their codes.
\<close>

abbreviation (input) c_NUL :: code_point where "c_NUL \<equiv> 0"
abbreviation (input) c_TAB :: code_point where "c_TAB \<equiv> 9"
abbreviation (input) c_LF :: code_point where "c_LF \<equiv> 10"
abbreviation (input) c_VT :: code_point where "c_VT \<equiv> 11"
abbreviation (input) c_CR :: code_point where "c_CR \<equiv> 13"
abbreviation (input) c_SPACE :: code_point where "c_SPACE \<equiv> 32"
abbreviation (input) c_BANG :: code_point where "c_BANG \<equiv> 33"
abbreviation (input) c_DQUOTE :: code_point where "c_DQUOTE \<equiv> 34"
abbreviation (input) c_POUND :: code_point where "c_POUND \<equiv> 35"
abbreviation (input) c_DOLLAR :: code_point where "c_DOLLAR \<equiv> 36"
abbreviation (input) c_PERCENT :: code_point where "c_PERCENT \<equiv> 37"
abbreviation (input) c_AMP :: code_point where "c_AMP \<equiv> 38"
abbreviation (input) c_SQUOTE :: code_point where "c_SQUOTE \<equiv> 39"
abbreviation (input) c_LPAREN :: code_point where "c_LPAREN \<equiv> 40"
abbreviation (input) c_RPAREN :: code_point where "c_RPAREN \<equiv> 41"
abbreviation (input) c_STAR :: code_point where "c_STAR \<equiv> 42"
abbreviation (input) c_PLUS :: code_point where "c_PLUS \<equiv> 43"
abbreviation (input) c_COMMA :: code_point where "c_COMMA \<equiv> 44"
abbreviation (input) c_DASH :: code_point where "c_DASH \<equiv> 45"
abbreviation (input) c_DOT :: code_point where "c_DOT \<equiv> 46"
abbreviation (input) c_SLASH :: code_point where "c_SLASH \<equiv> 47"
abbreviation (input) c_0 :: code_point where "c_0 \<equiv> 48"
abbreviation (input) c_1 :: code_point where "c_1 \<equiv> 49"
abbreviation (input) c_2 :: code_point where "c_2 \<equiv> 50"
abbreviation (input) c_3 :: code_point where "c_3 \<equiv> 51"
abbreviation (input) c_4 :: code_point where "c_4 \<equiv> 52"
abbreviation (input) c_5 :: code_point where "c_5 \<equiv> 53"
abbreviation (input) c_6 :: code_point where "c_6 \<equiv> 54"
abbreviation (input) c_7 :: code_point where "c_7 \<equiv> 55"
abbreviation (input) c_8 :: code_point where "c_8 \<equiv> 56"
abbreviation (input) c_9 :: code_point where "c_9 \<equiv> 57"
abbreviation (input) c_COLON :: code_point where "c_COLON \<equiv> 58"
abbreviation (input) c_SEMI :: code_point where "c_SEMI \<equiv> 59"
abbreviation (input) c_LT :: code_point where "c_LT \<equiv> 60"
abbreviation (input) c_EQ :: code_point where "c_EQ \<equiv> 61"
abbreviation (input) c_GT :: code_point where "c_GT \<equiv> 62"
abbreviation (input) c_QMARK :: code_point where "c_QMARK \<equiv> 63"
abbreviation (input) c_AT :: code_point where "c_AT \<equiv> 64"
abbreviation (input) c_A :: code_point where "c_A \<equiv> 65"
abbreviation (input) c_B :: code_point where "c_B \<equiv> 66"
abbreviation (input) c_C :: code_point where "c_C \<equiv> 67"
abbreviation (input) c_D :: code_point where "c_D \<equiv> 68"
abbreviation (input) c_E :: code_point where "c_E \<equiv> 69"
abbreviation (input) c_F :: code_point where "c_F \<equiv> 70"
abbreviation (input) c_G :: code_point where "c_G \<equiv> 71"
abbreviation (input) c_H :: code_point where "c_H \<equiv> 72"
abbreviation (input) c_I :: code_point where "c_I \<equiv> 73"
abbreviation (input) c_J :: code_point where "c_J \<equiv> 74"
abbreviation (input) c_K :: code_point where "c_K \<equiv> 75"
abbreviation (input) c_L :: code_point where "c_L \<equiv> 76"
abbreviation (input) c_M :: code_point where "c_M \<equiv> 77"
abbreviation (input) c_N :: code_point where "c_N \<equiv> 78"
abbreviation (input) c_O :: code_point where "c_O \<equiv> 79"
abbreviation (input) c_P :: code_point where "c_P \<equiv> 80"
abbreviation (input) c_Q :: code_point where "c_Q \<equiv> 81"
abbreviation (input) c_R :: code_point where "c_R \<equiv> 82"
abbreviation (input) c_S :: code_point where "c_S \<equiv> 83"
abbreviation (input) c_T :: code_point where "c_T \<equiv> 84"
abbreviation (input) c_U :: code_point where "c_U \<equiv> 85"
abbreviation (input) c_V :: code_point where "c_V \<equiv> 86"
abbreviation (input) c_W :: code_point where "c_W \<equiv> 87"
abbreviation (input) c_X :: code_point where "c_X \<equiv> 88"
abbreviation (input) c_Y :: code_point where "c_Y \<equiv> 89"
abbreviation (input) c_Z :: code_point where "c_Z \<equiv> 90"
abbreviation (input) c_LBRACK :: code_point where "c_LBRACK \<equiv> 91"
abbreviation (input) c_BSLASH :: code_point where "c_BSLASH \<equiv> 92"
abbreviation (input) c_RBRACK :: code_point where "c_RBRACK \<equiv> 93"
abbreviation (input) c_CARET :: code_point where "c_CARET \<equiv> 94"
abbreviation (input) c_UNDERSCORE :: code_point where "c_UNDERSCORE \<equiv> 95"
abbreviation (input) c_a :: code_point where "c_a \<equiv> 97"
abbreviation (input) c_b :: code_point where "c_b \<equiv> 98"
abbreviation (input) c_c :: code_point where "c_c \<equiv> 99"
abbreviation (input) c_d :: code_point where "c_d \<equiv> 100"
abbreviation (input) c_e :: code_point where "c_e \<equiv> 101"
abbreviation (input) c_f :: code_point where "c_f \<equiv> 102"
abbreviation (input) c_g :: code_point where "c_g \<equiv> 103"
abbreviation (input) c_h :: code_point where "c_h \<equiv> 104"
abbreviation (input) c_i :: code_point where "c_i \<equiv> 105"
abbreviation (input) c_j :: code_point where "c_j \<equiv> 106"
abbreviation (input) c_k :: code_point where "c_k \<equiv> 107"
abbreviation (input) c_l :: code_point where "c_l \<equiv> 108"
abbreviation (input) c_m :: code_point where "c_m \<equiv> 109"
abbreviation (input) c_n :: code_point where "c_n \<equiv> 110"
abbreviation (input) c_o :: code_point where "c_o \<equiv> 111"
abbreviation (input) c_p :: code_point where "c_p \<equiv> 112"
abbreviation (input) c_q :: code_point where "c_q \<equiv> 113"
abbreviation (input) c_r :: code_point where "c_r \<equiv> 114"
abbreviation (input) c_s :: code_point where "c_s \<equiv> 115"
abbreviation (input) c_t :: code_point where "c_t \<equiv> 116"
abbreviation (input) c_u :: code_point where "c_u \<equiv> 117"
abbreviation (input) c_v :: code_point where "c_v \<equiv> 118"
abbreviation (input) c_w :: code_point where "c_w \<equiv> 119"
abbreviation (input) c_x :: code_point where "c_x \<equiv> 120"
abbreviation (input) c_y :: code_point where "c_y \<equiv> 121"
abbreviation (input) c_z :: code_point where "c_z \<equiv> 122"
abbreviation (input) c_LBRACE :: code_point where "c_LBRACE \<equiv> 123"
abbreviation (input) c_PIPE :: code_point where "c_PIPE \<equiv> 124"
abbreviation (input) c_RBRACE :: code_point where "c_RBRACE \<equiv> 125"
abbreviation (input) c_TILDE :: code_point where "c_TILDE \<equiv> 126"

lemma CH_codes [simp]:
  "CH (CHR 0x09) = 9"
  "CH (CHR 0x0A) = 10"
  "CH (CHR 0x0B) = 11"
  "CH (CHR 0x0D) = 13"
  "CH (CHR 0x20) = 32"
  "CH (CHR ''!'') = 33"
  "CH (CHR 0x22) = 34"
  "CH (CHR ''#'') = 35"
  "CH (CHR ''$'') = 36"
  "CH (CHR ''%'') = 37"
  "CH (CHR ''&'') = 38"
  "CH (CHR 0x27) = 39"
  "CH (CHR ''('') = 40"
  "CH (CHR '')'') = 41"
  "CH (CHR ''*'') = 42"
  "CH (CHR ''+'') = 43"
  "CH (CHR '','') = 44"
  "CH (CHR ''-'') = 45"
  "CH (CHR ''.'') = 46"
  "CH (CHR ''/'') = 47"
  "CH (CHR ''0'') = 48"
  "CH (CHR ''1'') = 49"
  "CH (CHR ''2'') = 50"
  "CH (CHR ''3'') = 51"
  "CH (CHR ''4'') = 52"
  "CH (CHR ''5'') = 53"
  "CH (CHR ''6'') = 54"
  "CH (CHR ''7'') = 55"
  "CH (CHR ''8'') = 56"
  "CH (CHR ''9'') = 57"
  "CH (CHR '':'') = 58"
  "CH (CHR '';'') = 59"
  "CH (CHR ''<'') = 60"
  "CH (CHR ''='') = 61"
  "CH (CHR ''>'') = 62"
  "CH (CHR ''?'') = 63"
  "CH (CHR ''@'') = 64"
  "CH (CHR ''A'') = 65"
  "CH (CHR ''B'') = 66"
  "CH (CHR ''C'') = 67"
  "CH (CHR ''D'') = 68"
  "CH (CHR ''E'') = 69"
  "CH (CHR ''F'') = 70"
  "CH (CHR ''G'') = 71"
  "CH (CHR ''H'') = 72"
  "CH (CHR ''I'') = 73"
  "CH (CHR ''J'') = 74"
  "CH (CHR ''K'') = 75"
  "CH (CHR ''L'') = 76"
  "CH (CHR ''M'') = 77"
  "CH (CHR ''N'') = 78"
  "CH (CHR ''O'') = 79"
  "CH (CHR ''P'') = 80"
  "CH (CHR ''Q'') = 81"
  "CH (CHR ''R'') = 82"
  "CH (CHR ''S'') = 83"
  "CH (CHR ''T'') = 84"
  "CH (CHR ''U'') = 85"
  "CH (CHR ''V'') = 86"
  "CH (CHR ''W'') = 87"
  "CH (CHR ''X'') = 88"
  "CH (CHR ''Y'') = 89"
  "CH (CHR ''Z'') = 90"
  "CH (CHR ''['') = 91"
  "CH (CHR 0x5C) = 92"
  "CH (CHR '']'') = 93"
  "CH (CHR ''^'') = 94"
  "CH (CHR ''_'') = 95"
  "CH (CHR ''a'') = 97"
  "CH (CHR ''b'') = 98"
  "CH (CHR ''c'') = 99"
  "CH (CHR ''d'') = 100"
  "CH (CHR ''e'') = 101"
  "CH (CHR ''f'') = 102"
  "CH (CHR ''g'') = 103"
  "CH (CHR ''h'') = 104"
  "CH (CHR ''i'') = 105"
  "CH (CHR ''j'') = 106"
  "CH (CHR ''k'') = 107"
  "CH (CHR ''l'') = 108"
  "CH (CHR ''m'') = 109"
  "CH (CHR ''n'') = 110"
  "CH (CHR ''o'') = 111"
  "CH (CHR ''p'') = 112"
  "CH (CHR ''q'') = 113"
  "CH (CHR ''r'') = 114"
  "CH (CHR ''s'') = 115"
  "CH (CHR ''t'') = 116"
  "CH (CHR ''u'') = 117"
  "CH (CHR ''v'') = 118"
  "CH (CHR ''w'') = 119"
  "CH (CHR ''x'') = 120"
  "CH (CHR ''y'') = 121"
  "CH (CHR ''z'') = 122"
  "CH (CHR ''{'') = 123"
  "CH (CHR ''|'') = 124"
  "CH (CHR ''}'') = 125"
  "CH (CHR ''~'') = 126"
  by (simp_all add: CH_def)

end
