(* ===== verification/Dart_Keywords.thy ===== *)
theory Dart_Keywords
  imports Lexemes C_Chars Dart_Symbols
begin

text \<open>
  The keyword lexer \<^verbatim>\<open>ts_lex_keywords\<close> of \<^verbatim>\<open>parser.c\<close>: its 281 cases, the switch and the function,
  and the proof that it recognises exactly the reserved words of the grammar: after skipping
  white space it returns the longest reserved word at the front of the input.
\<close>

subsection \<open>The cases of the switch\<close>

definition ts_lex_keywords_cases_1 :: "(TSStateId \<times> lex_body) list" where
  "ts_lex_keywords_cases_1 = [
     (0, \<lambda>eof la. NO_TOKEN (
        ADVANCE_MAP [
          (c_F, 1), (c_a, 2), (c_b, 3), (c_c, 4), (c_d, 5), (c_e, 6), (c_f, 7), (c_g, 8),
          (c_h, 9), (c_i, 10), (c_l, 11), (c_m, 12), (c_n, 13), (c_o, 14), (c_p, 15),
          (c_r, 16), (c_s, 17), (c_t, 18), (c_v, 19), (c_w, 20), (c_y, 21)] la (
        if c_TAB \<le> la \<and> la \<le> c_CR \<or> la = c_SPACE then SKIP 0 else
        END_STATE))),
     (1, \<lambda>eof la. NO_TOKEN (
        if la = c_u then ADVANCE 22 else
        END_STATE)),
     (2, \<lambda>eof la. NO_TOKEN (
        if la = c_b then ADVANCE 23 else
        if la = c_s then ADVANCE 24 else
        if la = c_w then ADVANCE 25 else
        END_STATE)),
     (3, \<lambda>eof la. NO_TOKEN (
        if la = c_a then ADVANCE 26 else
        if la = c_o then ADVANCE 27 else
        if la = c_r then ADVANCE 28 else
        END_STATE)),
     (4, \<lambda>eof la. NO_TOKEN (
        if la = c_a then ADVANCE 29 else
        if la = c_l then ADVANCE 30 else
        if la = c_o then ADVANCE 31 else
        END_STATE)),
     (5, \<lambda>eof la. NO_TOKEN (
        if la = c_e then ADVANCE 32 else
        if la = c_o then ADVANCE 33 else
        if la = c_y then ADVANCE 34 else
        END_STATE)),
     (6, \<lambda>eof la. NO_TOKEN (
        if la = c_l then ADVANCE 35 else
        if la = c_n then ADVANCE 36 else
        if la = c_x then ADVANCE 37 else
        END_STATE)),
     (7, \<lambda>eof la. NO_TOKEN (
        if la = c_a then ADVANCE 38 else
        if la = c_i then ADVANCE 39 else
        if la = c_o then ADVANCE 40 else
        END_STATE)),
     (8, \<lambda>eof la. NO_TOKEN (
        if la = c_e then ADVANCE 41 else
        END_STATE)),
     (9, \<lambda>eof la. NO_TOKEN (
        if la = c_i then ADVANCE 42 else
        END_STATE)),
     (10, \<lambda>eof la. NO_TOKEN (
        if la = c_f then ADVANCE 43 else
        if la = c_m then ADVANCE 44 else
        if la = c_n then ADVANCE 45 else
        if la = c_s then ADVANCE 46 else
        END_STATE)),
     (11, \<lambda>eof la. NO_TOKEN (
        if la = c_a then ADVANCE 47 else
        if la = c_i then ADVANCE 48 else
        END_STATE)),
     (12, \<lambda>eof la. NO_TOKEN (
        if la = c_i then ADVANCE 49 else
        END_STATE)),
     (13, \<lambda>eof la. NO_TOKEN (
        if la = c_a then ADVANCE 50 else
        if la = c_e then ADVANCE 51 else
        if la = c_u then ADVANCE 52 else
        END_STATE)),
     (14, \<lambda>eof la. NO_TOKEN (
        if la = c_n then ADVANCE 53 else
        if la = c_p then ADVANCE 54 else
        END_STATE)),
     (15, \<lambda>eof la. NO_TOKEN (
        if la = c_a then ADVANCE 55 else
        END_STATE)),
     (16, \<lambda>eof la. NO_TOKEN (
        if la = c_e then ADVANCE 56 else
        END_STATE)),
     (17, \<lambda>eof la. NO_TOKEN (
        if la = c_e then ADVANCE 57 else
        if la = c_h then ADVANCE 58 else
        if la = c_t then ADVANCE 59 else
        if la = c_u then ADVANCE 60 else
        if la = c_w then ADVANCE 61 else
        END_STATE)),
     (18, \<lambda>eof la. NO_TOKEN (
        if la = c_h then ADVANCE 62 else
        if la = c_r then ADVANCE 63 else
        if la = c_y then ADVANCE 64 else
        END_STATE)),
     (19, \<lambda>eof la. NO_TOKEN (
        if la = c_a then ADVANCE 65 else
        if la = c_o then ADVANCE 66 else
        END_STATE)),
     (20, \<lambda>eof la. NO_TOKEN (
        if la = c_h then ADVANCE 67 else
        if la = c_i then ADVANCE 68 else
        END_STATE)),
     (21, \<lambda>eof la. NO_TOKEN (
        if la = c_i then ADVANCE 69 else
        END_STATE)),
     (22, \<lambda>eof la. NO_TOKEN (
        if la = c_n then ADVANCE 70 else
        END_STATE)),
     (23, \<lambda>eof la. NO_TOKEN (
        if la = c_s then ADVANCE 71 else
        END_STATE)),
     (24, \<lambda>eof la. NO_TOKEN (
        if la = c_s then ADVANCE 72 else
        END_STATE)),
     (25, \<lambda>eof la. NO_TOKEN (
        if la = c_a then ADVANCE 73 else
        END_STATE)),
     (26, \<lambda>eof la. NO_TOKEN (
        if la = c_s then ADVANCE 74 else
        END_STATE)),
     (27, \<lambda>eof la. NO_TOKEN (
        if la = c_o then ADVANCE 75 else
        END_STATE)),
     (28, \<lambda>eof la. NO_TOKEN (
        if la = c_e then ADVANCE 76 else
        END_STATE)),
     (29, \<lambda>eof la. NO_TOKEN (
        if la = c_s then ADVANCE 77 else
        if la = c_t then ADVANCE 78 else
        END_STATE)),
     (30, \<lambda>eof la. NO_TOKEN (
        if la = c_a then ADVANCE 79 else
        END_STATE)),
     (31, \<lambda>eof la. NO_TOKEN (
        if la = c_n then ADVANCE 80 else
        if la = c_v then ADVANCE 81 else
        END_STATE))]"

definition ts_lex_keywords_cases_2 :: "(TSStateId \<times> lex_body) list" where
  "ts_lex_keywords_cases_2 = [
     (32, \<lambda>eof la. NO_TOKEN (
        if la = c_f then ADVANCE 82 else
        END_STATE)),
     (33, \<lambda>eof la. ACCEPT_TOKEN anon_sym_do (
        if la = c_u then ADVANCE 83 else
        END_STATE)),
     (34, \<lambda>eof la. NO_TOKEN (
        if la = c_n then ADVANCE 84 else
        END_STATE)),
     (35, \<lambda>eof la. NO_TOKEN (
        if la = c_s then ADVANCE 85 else
        END_STATE)),
     (36, \<lambda>eof la. NO_TOKEN (
        if la = c_u then ADVANCE 86 else
        END_STATE)),
     (37, \<lambda>eof la. NO_TOKEN (
        if la = c_p then ADVANCE 87 else
        if la = c_t then ADVANCE 88 else
        END_STATE)),
     (38, \<lambda>eof la. NO_TOKEN (
        if la = c_c then ADVANCE 89 else
        if la = c_l then ADVANCE 90 else
        END_STATE)),
     (39, \<lambda>eof la. NO_TOKEN (
        if la = c_n then ADVANCE 91 else
        END_STATE)),
     (40, \<lambda>eof la. NO_TOKEN (
        if la = c_r then ADVANCE 92 else
        END_STATE)),
     (41, \<lambda>eof la. NO_TOKEN (
        if la = c_t then ADVANCE 93 else
        END_STATE)),
     (42, \<lambda>eof la. NO_TOKEN (
        if la = c_d then ADVANCE 94 else
        END_STATE)),
     (43, \<lambda>eof la. ACCEPT_TOKEN anon_sym_if (
        END_STATE)),
     (44, \<lambda>eof la. NO_TOKEN (
        if la = c_p then ADVANCE 95 else
        END_STATE)),
     (45, \<lambda>eof la. ACCEPT_TOKEN anon_sym_in (
        if la = c_l then ADVANCE 96 else
        if la = c_t then ADVANCE 97 else
        END_STATE)),
     (46, \<lambda>eof la. ACCEPT_TOKEN anon_sym_is (
        END_STATE)),
     (47, \<lambda>eof la. NO_TOKEN (
        if la = c_t then ADVANCE 98 else
        END_STATE)),
     (48, \<lambda>eof la. NO_TOKEN (
        if la = c_b then ADVANCE 99 else
        END_STATE)),
     (49, \<lambda>eof la. NO_TOKEN (
        if la = c_x then ADVANCE 100 else
        END_STATE)),
     (50, \<lambda>eof la. NO_TOKEN (
        if la = c_t then ADVANCE 101 else
        END_STATE)),
     (51, \<lambda>eof la. NO_TOKEN (
        if la = c_w then ADVANCE 102 else
        END_STATE)),
     (52, \<lambda>eof la. NO_TOKEN (
        if la = c_l then ADVANCE 103 else
        END_STATE)),
     (53, \<lambda>eof la. ACCEPT_TOKEN anon_sym_on (
        END_STATE)),
     (54, \<lambda>eof la. NO_TOKEN (
        if la = c_e then ADVANCE 104 else
        END_STATE)),
     (55, \<lambda>eof la. NO_TOKEN (
        if la = c_r then ADVANCE 105 else
        END_STATE)),
     (56, \<lambda>eof la. NO_TOKEN (
        if la = c_q then ADVANCE 106 else
        if la = c_t then ADVANCE 107 else
        END_STATE)),
     (57, \<lambda>eof la. NO_TOKEN (
        if la = c_a then ADVANCE 108 else
        if la = c_t then ADVANCE 109 else
        END_STATE)),
     (58, \<lambda>eof la. NO_TOKEN (
        if la = c_o then ADVANCE 110 else
        END_STATE)),
     (59, \<lambda>eof la. NO_TOKEN (
        if la = c_a then ADVANCE 111 else
        END_STATE)),
     (60, \<lambda>eof la. NO_TOKEN (
        if la = c_p then ADVANCE 112 else
        END_STATE)),
     (61, \<lambda>eof la. NO_TOKEN (
        if la = c_i then ADVANCE 113 else
        END_STATE)),
     (62, \<lambda>eof la. NO_TOKEN (
        if la = c_i then ADVANCE 114 else
        if la = c_r then ADVANCE 115 else
        END_STATE)),
     (63, \<lambda>eof la. NO_TOKEN (
        if la = c_u then ADVANCE 116 else
        if la = c_y then ADVANCE 117 else
        END_STATE)),
     (64, \<lambda>eof la. NO_TOKEN (
        if la = c_p then ADVANCE 118 else
        END_STATE)),
     (65, \<lambda>eof la. NO_TOKEN (
        if la = c_r then ADVANCE 119 else
        END_STATE)),
     (66, \<lambda>eof la. NO_TOKEN (
        if la = c_i then ADVANCE 120 else
        END_STATE)),
     (67, \<lambda>eof la. NO_TOKEN (
        if la = c_e then ADVANCE 121 else
        if la = c_i then ADVANCE 122 else
        END_STATE)),
     (68, \<lambda>eof la. NO_TOKEN (
        if la = c_t then ADVANCE 123 else
        END_STATE)),
     (69, \<lambda>eof la. NO_TOKEN (
        if la = c_e then ADVANCE 124 else
        END_STATE)),
     (70, \<lambda>eof la. NO_TOKEN (
        if la = c_c then ADVANCE 125 else
        END_STATE)),
     (71, \<lambda>eof la. NO_TOKEN (
        if la = c_t then ADVANCE 126 else
        END_STATE)),
     (72, \<lambda>eof la. NO_TOKEN (
        if la = c_e then ADVANCE 127 else
        END_STATE)),
     (73, \<lambda>eof la. NO_TOKEN (
        if la = c_i then ADVANCE 128 else
        END_STATE)),
     (74, \<lambda>eof la. NO_TOKEN (
        if la = c_e then ADVANCE 129 else
        END_STATE)),
     (75, \<lambda>eof la. NO_TOKEN (
        if la = c_l then ADVANCE 130 else
        END_STATE)),
     (76, \<lambda>eof la. NO_TOKEN (
        if la = c_a then ADVANCE 131 else
        END_STATE)),
     (77, \<lambda>eof la. NO_TOKEN (
        if la = c_e then ADVANCE 132 else
        END_STATE))]"

definition ts_lex_keywords_cases_3 :: "(TSStateId \<times> lex_body) list" where
  "ts_lex_keywords_cases_3 = [
     (78, \<lambda>eof la. NO_TOKEN (
        if la = c_c then ADVANCE 133 else
        END_STATE)),
     (79, \<lambda>eof la. NO_TOKEN (
        if la = c_s then ADVANCE 134 else
        END_STATE)),
     (80, \<lambda>eof la. NO_TOKEN (
        if la = c_s then ADVANCE 135 else
        if la = c_t then ADVANCE 136 else
        END_STATE)),
     (81, \<lambda>eof la. NO_TOKEN (
        if la = c_a then ADVANCE 137 else
        END_STATE)),
     (82, \<lambda>eof la. NO_TOKEN (
        if la = c_a then ADVANCE 138 else
        if la = c_e then ADVANCE 139 else
        END_STATE)),
     (83, \<lambda>eof la. NO_TOKEN (
        if la = c_b then ADVANCE 140 else
        END_STATE)),
     (84, \<lambda>eof la. NO_TOKEN (
        if la = c_a then ADVANCE 141 else
        END_STATE)),
     (85, \<lambda>eof la. NO_TOKEN (
        if la = c_e then ADVANCE 142 else
        END_STATE)),
     (86, \<lambda>eof la. NO_TOKEN (
        if la = c_m then ADVANCE 143 else
        END_STATE)),
     (87, \<lambda>eof la. NO_TOKEN (
        if la = c_o then ADVANCE 144 else
        END_STATE)),
     (88, \<lambda>eof la. NO_TOKEN (
        if la = c_e then ADVANCE 145 else
        END_STATE)),
     (89, \<lambda>eof la. NO_TOKEN (
        if la = c_t then ADVANCE 146 else
        END_STATE)),
     (90, \<lambda>eof la. NO_TOKEN (
        if la = c_s then ADVANCE 147 else
        END_STATE)),
     (91, \<lambda>eof la. NO_TOKEN (
        if la = c_a then ADVANCE 148 else
        END_STATE)),
     (92, \<lambda>eof la. ACCEPT_TOKEN anon_sym_for (
        END_STATE)),
     (93, \<lambda>eof la. ACCEPT_TOKEN anon_sym_get (
        END_STATE)),
     (94, \<lambda>eof la. NO_TOKEN (
        if la = c_e then ADVANCE 149 else
        END_STATE)),
     (95, \<lambda>eof la. NO_TOKEN (
        if la = c_l then ADVANCE 150 else
        if la = c_o then ADVANCE 151 else
        END_STATE)),
     (96, \<lambda>eof la. NO_TOKEN (
        if la = c_i then ADVANCE 152 else
        END_STATE)),
     (97, \<lambda>eof la. NO_TOKEN (
        if la = c_e then ADVANCE 153 else
        END_STATE)),
     (98, \<lambda>eof la. NO_TOKEN (
        if la = c_e then ADVANCE 154 else
        END_STATE)),
     (99, \<lambda>eof la. NO_TOKEN (
        if la = c_r then ADVANCE 155 else
        END_STATE)),
     (100, \<lambda>eof la. NO_TOKEN (
        if la = c_i then ADVANCE 156 else
        END_STATE)),
     (101, \<lambda>eof la. NO_TOKEN (
        if la = c_i then ADVANCE 157 else
        END_STATE)),
     (102, \<lambda>eof la. ACCEPT_TOKEN anon_sym_new (
        END_STATE)),
     (103, \<lambda>eof la. NO_TOKEN (
        if la = c_l then ADVANCE 158 else
        END_STATE)),
     (104, \<lambda>eof la. NO_TOKEN (
        if la = c_r then ADVANCE 159 else
        END_STATE)),
     (105, \<lambda>eof la. NO_TOKEN (
        if la = c_t then ADVANCE 160 else
        END_STATE)),
     (106, \<lambda>eof la. NO_TOKEN (
        if la = c_u then ADVANCE 161 else
        END_STATE)),
     (107, \<lambda>eof la. NO_TOKEN (
        if la = c_h then ADVANCE 162 else
        if la = c_u then ADVANCE 163 else
        END_STATE)),
     (108, \<lambda>eof la. NO_TOKEN (
        if la = c_l then ADVANCE 164 else
        END_STATE)),
     (109, \<lambda>eof la. ACCEPT_TOKEN anon_sym_set (
        END_STATE)),
     (110, \<lambda>eof la. NO_TOKEN (
        if la = c_w then ADVANCE 165 else
        END_STATE)),
     (111, \<lambda>eof la. NO_TOKEN (
        if la = c_t then ADVANCE 166 else
        END_STATE)),
     (112, \<lambda>eof la. NO_TOKEN (
        if la = c_e then ADVANCE 167 else
        END_STATE)),
     (113, \<lambda>eof la. NO_TOKEN (
        if la = c_t then ADVANCE 168 else
        END_STATE)),
     (114, \<lambda>eof la. NO_TOKEN (
        if la = c_s then ADVANCE 169 else
        END_STATE)),
     (115, \<lambda>eof la. NO_TOKEN (
        if la = c_o then ADVANCE 170 else
        END_STATE)),
     (116, \<lambda>eof la. NO_TOKEN (
        if la = c_e then ADVANCE 171 else
        END_STATE)),
     (117, \<lambda>eof la. ACCEPT_TOKEN anon_sym_try (
        END_STATE)),
     (118, \<lambda>eof la. NO_TOKEN (
        if la = c_e then ADVANCE 172 else
        END_STATE)),
     (119, \<lambda>eof la. ACCEPT_TOKEN anon_sym_var (
        END_STATE)),
     (120, \<lambda>eof la. NO_TOKEN (
        if la = c_d then ADVANCE 173 else
        END_STATE)),
     (121, \<lambda>eof la. NO_TOKEN (
        if la = c_n then ADVANCE 174 else
        END_STATE)),
     (122, \<lambda>eof la. NO_TOKEN (
        if la = c_l then ADVANCE 175 else
        END_STATE)),
     (123, \<lambda>eof la. NO_TOKEN (
        if la = c_h then ADVANCE 176 else
        END_STATE)),
     (124, \<lambda>eof la. NO_TOKEN (
        if la = c_l then ADVANCE 177 else
        END_STATE)),
     (125, \<lambda>eof la. NO_TOKEN (
        if la = c_t then ADVANCE 178 else
        END_STATE))]"

definition ts_lex_keywords_cases_4 :: "(TSStateId \<times> lex_body) list" where
  "ts_lex_keywords_cases_4 = [
     (126, \<lambda>eof la. NO_TOKEN (
        if la = c_r then ADVANCE 179 else
        END_STATE)),
     (127, \<lambda>eof la. NO_TOKEN (
        if la = c_r then ADVANCE 180 else
        END_STATE)),
     (128, \<lambda>eof la. NO_TOKEN (
        if la = c_t then ADVANCE 181 else
        END_STATE)),
     (129, \<lambda>eof la. ACCEPT_TOKEN anon_sym_base (
        END_STATE)),
     (130, \<lambda>eof la. ACCEPT_TOKEN anon_sym_bool (
        END_STATE)),
     (131, \<lambda>eof la. NO_TOKEN (
        if la = c_k then ADVANCE 182 else
        END_STATE)),
     (132, \<lambda>eof la. ACCEPT_TOKEN anon_sym_case (
        END_STATE)),
     (133, \<lambda>eof la. NO_TOKEN (
        if la = c_h then ADVANCE 183 else
        END_STATE)),
     (134, \<lambda>eof la. NO_TOKEN (
        if la = c_s then ADVANCE 184 else
        END_STATE)),
     (135, \<lambda>eof la. NO_TOKEN (
        if la = c_t then ADVANCE 185 else
        END_STATE)),
     (136, \<lambda>eof la. NO_TOKEN (
        if la = c_i then ADVANCE 186 else
        END_STATE)),
     (137, \<lambda>eof la. NO_TOKEN (
        if la = c_r then ADVANCE 187 else
        END_STATE)),
     (138, \<lambda>eof la. NO_TOKEN (
        if la = c_u then ADVANCE 188 else
        END_STATE)),
     (139, \<lambda>eof la. NO_TOKEN (
        if la = c_r then ADVANCE 189 else
        END_STATE)),
     (140, \<lambda>eof la. NO_TOKEN (
        if la = c_l then ADVANCE 190 else
        END_STATE)),
     (141, \<lambda>eof la. NO_TOKEN (
        if la = c_m then ADVANCE 191 else
        END_STATE)),
     (142, \<lambda>eof la. ACCEPT_TOKEN anon_sym_else (
        END_STATE)),
     (143, \<lambda>eof la. ACCEPT_TOKEN anon_sym_enum (
        END_STATE)),
     (144, \<lambda>eof la. NO_TOKEN (
        if la = c_r then ADVANCE 192 else
        END_STATE)),
     (145, \<lambda>eof la. NO_TOKEN (
        if la = c_n then ADVANCE 193 else
        if la = c_r then ADVANCE 194 else
        END_STATE)),
     (146, \<lambda>eof la. NO_TOKEN (
        if la = c_o then ADVANCE 195 else
        END_STATE)),
     (147, \<lambda>eof la. NO_TOKEN (
        if la = c_e then ADVANCE 196 else
        END_STATE)),
     (148, \<lambda>eof la. NO_TOKEN (
        if la = c_l then ADVANCE 197 else
        END_STATE)),
     (149, \<lambda>eof la. ACCEPT_TOKEN anon_sym_hide (
        END_STATE)),
     (150, \<lambda>eof la. NO_TOKEN (
        if la = c_e then ADVANCE 198 else
        END_STATE)),
     (151, \<lambda>eof la. NO_TOKEN (
        if la = c_r then ADVANCE 199 else
        END_STATE)),
     (152, \<lambda>eof la. NO_TOKEN (
        if la = c_n then ADVANCE 200 else
        END_STATE)),
     (153, \<lambda>eof la. NO_TOKEN (
        if la = c_r then ADVANCE 201 else
        END_STATE)),
     (154, \<lambda>eof la. ACCEPT_TOKEN anon_sym_late (
        END_STATE)),
     (155, \<lambda>eof la. NO_TOKEN (
        if la = c_a then ADVANCE 202 else
        END_STATE)),
     (156, \<lambda>eof la. NO_TOKEN (
        if la = c_n then ADVANCE 203 else
        END_STATE)),
     (157, \<lambda>eof la. NO_TOKEN (
        if la = c_v then ADVANCE 204 else
        END_STATE)),
     (158, \<lambda>eof la. ACCEPT_TOKEN anon_sym_null (
        END_STATE)),
     (159, \<lambda>eof la. NO_TOKEN (
        if la = c_a then ADVANCE 205 else
        END_STATE)),
     (160, \<lambda>eof la. ACCEPT_TOKEN anon_sym_part (
        END_STATE)),
     (161, \<lambda>eof la. NO_TOKEN (
        if la = c_i then ADVANCE 206 else
        END_STATE)),
     (162, \<lambda>eof la. NO_TOKEN (
        if la = c_r then ADVANCE 207 else
        END_STATE)),
     (163, \<lambda>eof la. NO_TOKEN (
        if la = c_r then ADVANCE 208 else
        END_STATE)),
     (164, \<lambda>eof la. NO_TOKEN (
        if la = c_e then ADVANCE 209 else
        END_STATE)),
     (165, \<lambda>eof la. ACCEPT_TOKEN anon_sym_show (
        END_STATE)),
     (166, \<lambda>eof la. NO_TOKEN (
        if la = c_i then ADVANCE 210 else
        END_STATE)),
     (167, \<lambda>eof la. NO_TOKEN (
        if la = c_r then ADVANCE 211 else
        END_STATE)),
     (168, \<lambda>eof la. NO_TOKEN (
        if la = c_c then ADVANCE 212 else
        END_STATE)),
     (169, \<lambda>eof la. ACCEPT_TOKEN anon_sym_this (
        END_STATE)),
     (170, \<lambda>eof la. NO_TOKEN (
        if la = c_w then ADVANCE 213 else
        END_STATE)),
     (171, \<lambda>eof la. ACCEPT_TOKEN anon_sym_true (
        END_STATE)),
     (172, \<lambda>eof la. NO_TOKEN (
        if la = c_d then ADVANCE 214 else
        END_STATE)),
     (173, \<lambda>eof la. ACCEPT_TOKEN sym_void_type (
        END_STATE)),
     (174, \<lambda>eof la. ACCEPT_TOKEN anon_sym_when (
        END_STATE))]"

definition ts_lex_keywords_cases_5 :: "(TSStateId \<times> lex_body) list" where
  "ts_lex_keywords_cases_5 = [
     (175, \<lambda>eof la. NO_TOKEN (
        if la = c_e then ADVANCE 215 else
        END_STATE)),
     (176, \<lambda>eof la. ACCEPT_TOKEN anon_sym_with (
        END_STATE)),
     (177, \<lambda>eof la. NO_TOKEN (
        if la = c_d then ADVANCE 216 else
        END_STATE)),
     (178, \<lambda>eof la. NO_TOKEN (
        if la = c_i then ADVANCE 217 else
        END_STATE)),
     (179, \<lambda>eof la. NO_TOKEN (
        if la = c_a then ADVANCE 218 else
        END_STATE)),
     (180, \<lambda>eof la. NO_TOKEN (
        if la = c_t then ADVANCE 219 else
        END_STATE)),
     (181, \<lambda>eof la. ACCEPT_TOKEN anon_sym_await (
        END_STATE)),
     (182, \<lambda>eof la. ACCEPT_TOKEN sym_break_builtin (
        END_STATE)),
     (183, \<lambda>eof la. ACCEPT_TOKEN anon_sym_catch (
        END_STATE)),
     (184, \<lambda>eof la. ACCEPT_TOKEN anon_sym_class (
        END_STATE)),
     (185, \<lambda>eof la. ACCEPT_TOKEN sym_const_builtin (
        END_STATE)),
     (186, \<lambda>eof la. NO_TOKEN (
        if la = c_n then ADVANCE 220 else
        END_STATE)),
     (187, \<lambda>eof la. NO_TOKEN (
        if la = c_i then ADVANCE 221 else
        END_STATE)),
     (188, \<lambda>eof la. NO_TOKEN (
        if la = c_l then ADVANCE 222 else
        END_STATE)),
     (189, \<lambda>eof la. NO_TOKEN (
        if la = c_r then ADVANCE 223 else
        END_STATE)),
     (190, \<lambda>eof la. NO_TOKEN (
        if la = c_e then ADVANCE 224 else
        END_STATE)),
     (191, \<lambda>eof la. NO_TOKEN (
        if la = c_i then ADVANCE 225 else
        END_STATE)),
     (192, \<lambda>eof la. NO_TOKEN (
        if la = c_t then ADVANCE 226 else
        END_STATE)),
     (193, \<lambda>eof la. NO_TOKEN (
        if la = c_d then ADVANCE 227 else
        if la = c_s then ADVANCE 228 else
        END_STATE)),
     (194, \<lambda>eof la. NO_TOKEN (
        if la = c_n then ADVANCE 229 else
        END_STATE)),
     (195, \<lambda>eof la. NO_TOKEN (
        if la = c_r then ADVANCE 230 else
        END_STATE)),
     (196, \<lambda>eof la. ACCEPT_TOKEN anon_sym_false (
        END_STATE)),
     (197, \<lambda>eof la. ACCEPT_TOKEN anon_sym_final (
        if la = c_l then ADVANCE 231 else
        END_STATE)),
     (198, \<lambda>eof la. NO_TOKEN (
        if la = c_m then ADVANCE 232 else
        END_STATE)),
     (199, \<lambda>eof la. NO_TOKEN (
        if la = c_t then ADVANCE 233 else
        END_STATE)),
     (200, \<lambda>eof la. NO_TOKEN (
        if la = c_e then ADVANCE 234 else
        END_STATE)),
     (201, \<lambda>eof la. NO_TOKEN (
        if la = c_f then ADVANCE 235 else
        END_STATE)),
     (202, \<lambda>eof la. NO_TOKEN (
        if la = c_r then ADVANCE 236 else
        END_STATE)),
     (203, \<lambda>eof la. ACCEPT_TOKEN anon_sym_mixin (
        END_STATE)),
     (204, \<lambda>eof la. NO_TOKEN (
        if la = c_e then ADVANCE 237 else
        END_STATE)),
     (205, \<lambda>eof la. NO_TOKEN (
        if la = c_t then ADVANCE 238 else
        END_STATE)),
     (206, \<lambda>eof la. NO_TOKEN (
        if la = c_r then ADVANCE 239 else
        END_STATE)),
     (207, \<lambda>eof la. NO_TOKEN (
        if la = c_o then ADVANCE 240 else
        END_STATE)),
     (208, \<lambda>eof la. NO_TOKEN (
        if la = c_n then ADVANCE 241 else
        END_STATE)),
     (209, \<lambda>eof la. NO_TOKEN (
        if la = c_d then ADVANCE 242 else
        END_STATE)),
     (210, \<lambda>eof la. NO_TOKEN (
        if la = c_c then ADVANCE 243 else
        END_STATE)),
     (211, \<lambda>eof la. ACCEPT_TOKEN anon_sym_super (
        END_STATE)),
     (212, \<lambda>eof la. NO_TOKEN (
        if la = c_h then ADVANCE 244 else
        END_STATE)),
     (213, \<lambda>eof la. ACCEPT_TOKEN anon_sym_throw (
        END_STATE)),
     (214, \<lambda>eof la. NO_TOKEN (
        if la = c_e then ADVANCE 245 else
        END_STATE)),
     (215, \<lambda>eof la. ACCEPT_TOKEN anon_sym_while (
        END_STATE)),
     (216, \<lambda>eof la. ACCEPT_TOKEN anon_sym_yield (
        END_STATE)),
     (217, \<lambda>eof la. NO_TOKEN (
        if la = c_o then ADVANCE 246 else
        END_STATE)),
     (218, \<lambda>eof la. NO_TOKEN (
        if la = c_c then ADVANCE 247 else
        END_STATE)),
     (219, \<lambda>eof la. ACCEPT_TOKEN sym_assert_builtin (
        END_STATE)),
     (220, \<lambda>eof la. NO_TOKEN (
        if la = c_u then ADVANCE 248 else
        END_STATE)),
     (221, \<lambda>eof la. NO_TOKEN (
        if la = c_a then ADVANCE 249 else
        END_STATE)),
     (222, \<lambda>eof la. NO_TOKEN (
        if la = c_t then ADVANCE 250 else
        END_STATE)),
     (223, \<lambda>eof la. NO_TOKEN (
        if la = c_e then ADVANCE 251 else
        END_STATE))]"

definition ts_lex_keywords_cases_6 :: "(TSStateId \<times> lex_body) list" where
  "ts_lex_keywords_cases_6 = [
     (224, \<lambda>eof la. ACCEPT_TOKEN sym_floating_point_type (
        END_STATE)),
     (225, \<lambda>eof la. NO_TOKEN (
        if la = c_c then ADVANCE 252 else
        END_STATE)),
     (226, \<lambda>eof la. ACCEPT_TOKEN anon_sym_export (
        END_STATE)),
     (227, \<lambda>eof la. NO_TOKEN (
        if la = c_s then ADVANCE 253 else
        END_STATE)),
     (228, \<lambda>eof la. NO_TOKEN (
        if la = c_i then ADVANCE 254 else
        END_STATE)),
     (229, \<lambda>eof la. NO_TOKEN (
        if la = c_a then ADVANCE 255 else
        END_STATE)),
     (230, \<lambda>eof la. NO_TOKEN (
        if la = c_y then ADVANCE 256 else
        END_STATE)),
     (231, \<lambda>eof la. NO_TOKEN (
        if la = c_y then ADVANCE 257 else
        END_STATE)),
     (232, \<lambda>eof la. NO_TOKEN (
        if la = c_e then ADVANCE 258 else
        END_STATE)),
     (233, \<lambda>eof la. ACCEPT_TOKEN anon_sym_import (
        END_STATE)),
     (234, \<lambda>eof la. ACCEPT_TOKEN anon_sym_inline (
        END_STATE)),
     (235, \<lambda>eof la. NO_TOKEN (
        if la = c_a then ADVANCE 259 else
        END_STATE)),
     (236, \<lambda>eof la. NO_TOKEN (
        if la = c_y then ADVANCE 260 else
        END_STATE)),
     (237, \<lambda>eof la. ACCEPT_TOKEN anon_sym_native (
        END_STATE)),
     (238, \<lambda>eof la. NO_TOKEN (
        if la = c_o then ADVANCE 261 else
        END_STATE)),
     (239, \<lambda>eof la. NO_TOKEN (
        if la = c_e then ADVANCE 262 else
        END_STATE)),
     (240, \<lambda>eof la. NO_TOKEN (
        if la = c_w then ADVANCE 263 else
        END_STATE)),
     (241, \<lambda>eof la. ACCEPT_TOKEN anon_sym_return (
        END_STATE)),
     (242, \<lambda>eof la. ACCEPT_TOKEN anon_sym_sealed (
        END_STATE)),
     (243, \<lambda>eof la. ACCEPT_TOKEN anon_sym_static (
        END_STATE)),
     (244, \<lambda>eof la. ACCEPT_TOKEN anon_sym_switch (
        END_STATE)),
     (245, \<lambda>eof la. NO_TOKEN (
        if la = c_f then ADVANCE 264 else
        END_STATE)),
     (246, \<lambda>eof la. NO_TOKEN (
        if la = c_n then ADVANCE 265 else
        END_STATE)),
     (247, \<lambda>eof la. NO_TOKEN (
        if la = c_t then ADVANCE 266 else
        END_STATE)),
     (248, \<lambda>eof la. NO_TOKEN (
        if la = c_e then ADVANCE 267 else
        END_STATE)),
     (249, \<lambda>eof la. NO_TOKEN (
        if la = c_n then ADVANCE 268 else
        END_STATE)),
     (250, \<lambda>eof la. ACCEPT_TOKEN anon_sym_default (
        END_STATE)),
     (251, \<lambda>eof la. NO_TOKEN (
        if la = c_d then ADVANCE 269 else
        END_STATE)),
     (252, \<lambda>eof la. ACCEPT_TOKEN anon_sym_dynamic (
        END_STATE)),
     (253, \<lambda>eof la. ACCEPT_TOKEN anon_sym_extends (
        END_STATE)),
     (254, \<lambda>eof la. NO_TOKEN (
        if la = c_o then ADVANCE 270 else
        END_STATE)),
     (255, \<lambda>eof la. NO_TOKEN (
        if la = c_l then ADVANCE 271 else
        END_STATE)),
     (256, \<lambda>eof la. ACCEPT_TOKEN anon_sym_factory (
        END_STATE)),
     (257, \<lambda>eof la. ACCEPT_TOKEN anon_sym_finally (
        END_STATE)),
     (258, \<lambda>eof la. NO_TOKEN (
        if la = c_n then ADVANCE 272 else
        END_STATE)),
     (259, \<lambda>eof la. NO_TOKEN (
        if la = c_c then ADVANCE 273 else
        END_STATE)),
     (260, \<lambda>eof la. ACCEPT_TOKEN anon_sym_library (
        END_STATE)),
     (261, \<lambda>eof la. NO_TOKEN (
        if la = c_r then ADVANCE 274 else
        END_STATE)),
     (262, \<lambda>eof la. NO_TOKEN (
        if la = c_d then ADVANCE 275 else
        END_STATE)),
     (263, \<lambda>eof la. ACCEPT_TOKEN sym_rethrow_builtin (
        END_STATE)),
     (264, \<lambda>eof la. ACCEPT_TOKEN anon_sym_typedef (
        END_STATE)),
     (265, \<lambda>eof la. ACCEPT_TOKEN anon_sym_Function (
        END_STATE)),
     (266, \<lambda>eof la. ACCEPT_TOKEN anon_sym_abstract (
        END_STATE)),
     (267, \<lambda>eof la. ACCEPT_TOKEN anon_sym_continue (
        END_STATE)),
     (268, \<lambda>eof la. NO_TOKEN (
        if la = c_t then ADVANCE 276 else
        END_STATE)),
     (269, \<lambda>eof la. ACCEPT_TOKEN anon_sym_deferred (
        END_STATE)),
     (270, \<lambda>eof la. NO_TOKEN (
        if la = c_n then ADVANCE 277 else
        END_STATE)),
     (271, \<lambda>eof la. ACCEPT_TOKEN anon_sym_external (
        END_STATE)),
     (272, \<lambda>eof la. NO_TOKEN (
        if la = c_t then ADVANCE 278 else
        END_STATE)),
     (273, \<lambda>eof la. NO_TOKEN (
        if la = c_e then ADVANCE 279 else
        END_STATE))]"

definition ts_lex_keywords_cases_7 :: "(TSStateId \<times> lex_body) list" where
  "ts_lex_keywords_cases_7 = [
     (274, \<lambda>eof la. ACCEPT_TOKEN anon_sym_operator (
        END_STATE)),
     (275, \<lambda>eof la. ACCEPT_TOKEN anon_sym_required (
        END_STATE)),
     (276, \<lambda>eof la. ACCEPT_TOKEN anon_sym_covariant (
        END_STATE)),
     (277, \<lambda>eof la. ACCEPT_TOKEN anon_sym_extension (
        END_STATE)),
     (278, \<lambda>eof la. NO_TOKEN (
        if la = c_s then ADVANCE 280 else
        END_STATE)),
     (279, \<lambda>eof la. ACCEPT_TOKEN anon_sym_interface (
        END_STATE)),
     (280, \<lambda>eof la. ACCEPT_TOKEN anon_sym_implements (
        END_STATE))]"

subsection \<open>The switch and the lexer\<close>

definition ts_lex_keywords_cases :: "(TSStateId \<times> lex_body) list" where
  "ts_lex_keywords_cases = ts_lex_keywords_cases_1 @ ts_lex_keywords_cases_2 @ ts_lex_keywords_cases_3 @
     ts_lex_keywords_cases_4 @ ts_lex_keywords_cases_5 @ ts_lex_keywords_cases_6 @
     ts_lex_keywords_cases_7"

definition ts_lex_keywords_switch :: lex_cases where
  "ts_lex_keywords_switch = map_of ts_lex_keywords_cases"

definition ts_lex_keywords ::
  "'p TSLexer_scheme TSLexer_ops \<Rightarrow> TSStateId \<Rightarrow> 'p TSLexer_scheme \<Rightarrow> (bool \<times> 'p TSLexer_scheme) option"
  where "ts_lex_keywords ops state l = lex_loop ts_lex_keywords_switch ops False state l"

subsection \<open>The reserved words\<close>

text \<open>The reserved words of the grammar with their symbols, in alphabetical order.\<close>

definition dart_keywords :: word_list where
  "dart_keywords = [
     (''Function'', anon_sym_Function), (''abstract'', anon_sym_abstract),
     (''assert'', sym_assert_builtin), (''await'', anon_sym_await), (''base'', anon_sym_base),
     (''bool'', anon_sym_bool), (''break'', sym_break_builtin), (''case'', anon_sym_case),
     (''catch'', anon_sym_catch), (''class'', anon_sym_class), (''const'', sym_const_builtin),
     (''continue'', anon_sym_continue), (''covariant'', anon_sym_covariant),
     (''default'', anon_sym_default), (''deferred'', anon_sym_deferred), (''do'', anon_sym_do),
     (''double'', sym_floating_point_type), (''dynamic'', anon_sym_dynamic),
     (''else'', anon_sym_else), (''enum'', anon_sym_enum), (''export'', anon_sym_export),
     (''extends'', anon_sym_extends), (''extension'', anon_sym_extension),
     (''external'', anon_sym_external), (''factory'', anon_sym_factory),
     (''false'', anon_sym_false), (''final'', anon_sym_final), (''finally'', anon_sym_finally),
     (''for'', anon_sym_for), (''get'', anon_sym_get), (''hide'', anon_sym_hide),
     (''if'', anon_sym_if), (''implements'', anon_sym_implements),
     (''import'', anon_sym_import), (''in'', anon_sym_in), (''inline'', anon_sym_inline),
     (''interface'', anon_sym_interface), (''is'', anon_sym_is), (''late'', anon_sym_late),
     (''library'', anon_sym_library), (''mixin'', anon_sym_mixin),
     (''native'', anon_sym_native), (''new'', anon_sym_new), (''null'', anon_sym_null),
     (''on'', anon_sym_on), (''operator'', anon_sym_operator), (''part'', anon_sym_part),
     (''required'', anon_sym_required), (''rethrow'', sym_rethrow_builtin),
     (''return'', anon_sym_return), (''sealed'', anon_sym_sealed), (''set'', anon_sym_set),
     (''show'', anon_sym_show), (''static'', anon_sym_static), (''super'', anon_sym_super),
     (''switch'', anon_sym_switch), (''this'', anon_sym_this), (''throw'', anon_sym_throw),
     (''true'', anon_sym_true), (''try'', anon_sym_try), (''typedef'', anon_sym_typedef),
     (''var'', anon_sym_var), (''void'', sym_void_type), (''when'', anon_sym_when),
     (''while'', anon_sym_while), (''with'', anon_sym_with), (''yield'', anon_sym_yield)]"

text \<open>
  The words each state still has to match, for the states of each group of cases.
\<close>

definition keyword_residuals_1 :: "(TSStateId \<times> word_list) list" where
  "keyword_residuals_1 = [
     (0, [(''Function'', anon_sym_Function), (''abstract'', anon_sym_abstract), (''assert'',
       sym_assert_builtin), (''await'', anon_sym_await), (''base'', anon_sym_base), (''bool'',
       anon_sym_bool), (''break'', sym_break_builtin), (''case'', anon_sym_case), (''catch'',
       anon_sym_catch), (''class'', anon_sym_class), (''const'', sym_const_builtin), (''continue'',
       anon_sym_continue), (''covariant'', anon_sym_covariant), (''default'', anon_sym_default),
       (''deferred'', anon_sym_deferred), (''do'', anon_sym_do), (''double'',
       sym_floating_point_type), (''dynamic'', anon_sym_dynamic), (''else'', anon_sym_else),
       (''enum'', anon_sym_enum), (''export'', anon_sym_export), (''extends'', anon_sym_extends),
       (''extension'', anon_sym_extension), (''external'', anon_sym_external), (''factory'',
       anon_sym_factory), (''false'', anon_sym_false), (''final'', anon_sym_final), (''finally'',
       anon_sym_finally), (''for'', anon_sym_for), (''get'', anon_sym_get), (''hide'',
       anon_sym_hide), (''if'', anon_sym_if), (''implements'', anon_sym_implements), (''import'',
       anon_sym_import), (''in'', anon_sym_in), (''inline'', anon_sym_inline), (''interface'',
       anon_sym_interface), (''is'', anon_sym_is), (''late'', anon_sym_late), (''library'',
       anon_sym_library), (''mixin'', anon_sym_mixin), (''native'', anon_sym_native), (''new'',
       anon_sym_new), (''null'', anon_sym_null), (''on'', anon_sym_on), (''operator'',
       anon_sym_operator), (''part'', anon_sym_part), (''required'', anon_sym_required),
       (''rethrow'', sym_rethrow_builtin), (''return'', anon_sym_return), (''sealed'',
       anon_sym_sealed), (''set'', anon_sym_set), (''show'', anon_sym_show), (''static'',
       anon_sym_static), (''super'', anon_sym_super), (''switch'', anon_sym_switch), (''this'',
       anon_sym_this), (''throw'', anon_sym_throw), (''true'', anon_sym_true), (''try'',
       anon_sym_try), (''typedef'', anon_sym_typedef), (''var'', anon_sym_var), (''void'',
       sym_void_type), (''when'', anon_sym_when), (''while'', anon_sym_while), (''with'',
       anon_sym_with), (''yield'', anon_sym_yield)]),
     (1, [(''unction'', anon_sym_Function)]),
     (2, [(''bstract'', anon_sym_abstract), (''ssert'', sym_assert_builtin), (''wait'',
       anon_sym_await)]),
     (3, [(''ase'', anon_sym_base), (''ool'', anon_sym_bool), (''reak'', sym_break_builtin)]),
     (4, [(''ase'', anon_sym_case), (''atch'', anon_sym_catch), (''lass'', anon_sym_class),
       (''onst'', sym_const_builtin), (''ontinue'', anon_sym_continue), (''ovariant'',
       anon_sym_covariant)]),
     (5, [(''efault'', anon_sym_default), (''eferred'', anon_sym_deferred), (''o'', anon_sym_do),
       (''ouble'', sym_floating_point_type), (''ynamic'', anon_sym_dynamic)]),
     (6, [(''lse'', anon_sym_else), (''num'', anon_sym_enum), (''xport'', anon_sym_export),
       (''xtends'', anon_sym_extends), (''xtension'', anon_sym_extension), (''xternal'',
       anon_sym_external)]),
     (7, [(''actory'', anon_sym_factory), (''alse'', anon_sym_false), (''inal'', anon_sym_final),
       (''inally'', anon_sym_finally), (''or'', anon_sym_for)]),
     (8, [(''et'', anon_sym_get)]),
     (9, [(''ide'', anon_sym_hide)]),
     (10, [(''f'', anon_sym_if), (''mplements'', anon_sym_implements), (''mport'',
       anon_sym_import), (''n'', anon_sym_in), (''nline'', anon_sym_inline), (''nterface'',
       anon_sym_interface), (''s'', anon_sym_is)]),
     (11, [(''ate'', anon_sym_late), (''ibrary'', anon_sym_library)]),
     (12, [(''ixin'', anon_sym_mixin)]),
     (13, [(''ative'', anon_sym_native), (''ew'', anon_sym_new), (''ull'', anon_sym_null)]),
     (14, [(''n'', anon_sym_on), (''perator'', anon_sym_operator)]),
     (15, [(''art'', anon_sym_part)]),
     (16, [(''equired'', anon_sym_required), (''ethrow'', sym_rethrow_builtin), (''eturn'',
       anon_sym_return)]),
     (17, [(''ealed'', anon_sym_sealed), (''et'', anon_sym_set), (''how'', anon_sym_show),
       (''tatic'', anon_sym_static), (''uper'', anon_sym_super), (''witch'', anon_sym_switch)]),
     (18, [(''his'', anon_sym_this), (''hrow'', anon_sym_throw), (''rue'', anon_sym_true),
       (''ry'', anon_sym_try), (''ypedef'', anon_sym_typedef)]),
     (19, [(''ar'', anon_sym_var), (''oid'', sym_void_type)]),
     (20, [(''hen'', anon_sym_when), (''hile'', anon_sym_while), (''ith'', anon_sym_with)]),
     (21, [(''ield'', anon_sym_yield)]),
     (22, [(''nction'', anon_sym_Function)]),
     (23, [(''stract'', anon_sym_abstract)]),
     (24, [(''sert'', sym_assert_builtin)]),
     (25, [(''ait'', anon_sym_await)]),
     (26, [(''se'', anon_sym_base)]),
     (27, [(''ol'', anon_sym_bool)]),
     (28, [(''eak'', sym_break_builtin)]),
     (29, [(''se'', anon_sym_case), (''tch'', anon_sym_catch)]),
     (30, [(''ass'', anon_sym_class)]),
     (31, [(''nst'', sym_const_builtin), (''ntinue'', anon_sym_continue), (''variant'',
       anon_sym_covariant)])]"

definition keyword_residuals_2 :: "(TSStateId \<times> word_list) list" where
  "keyword_residuals_2 = [
     (32, [(''fault'', anon_sym_default), (''ferred'', anon_sym_deferred)]),
     (33, [('''', anon_sym_do), (''uble'', sym_floating_point_type)]),
     (34, [(''namic'', anon_sym_dynamic)]),
     (35, [(''se'', anon_sym_else)]),
     (36, [(''um'', anon_sym_enum)]),
     (37, [(''port'', anon_sym_export), (''tends'', anon_sym_extends), (''tension'',
       anon_sym_extension), (''ternal'', anon_sym_external)]),
     (38, [(''ctory'', anon_sym_factory), (''lse'', anon_sym_false)]),
     (39, [(''nal'', anon_sym_final), (''nally'', anon_sym_finally)]),
     (40, [(''r'', anon_sym_for)]),
     (41, [(''t'', anon_sym_get)]),
     (42, [(''de'', anon_sym_hide)]),
     (43, [('''', anon_sym_if)]),
     (44, [(''plements'', anon_sym_implements), (''port'', anon_sym_import)]),
     (45, [('''', anon_sym_in), (''line'', anon_sym_inline), (''terface'', anon_sym_interface)]),
     (46, [('''', anon_sym_is)]),
     (47, [(''te'', anon_sym_late)]),
     (48, [(''brary'', anon_sym_library)]),
     (49, [(''xin'', anon_sym_mixin)]),
     (50, [(''tive'', anon_sym_native)]),
     (51, [(''w'', anon_sym_new)]),
     (52, [(''ll'', anon_sym_null)]),
     (53, [('''', anon_sym_on)]),
     (54, [(''erator'', anon_sym_operator)]),
     (55, [(''rt'', anon_sym_part)]),
     (56, [(''quired'', anon_sym_required), (''throw'', sym_rethrow_builtin), (''turn'',
       anon_sym_return)]),
     (57, [(''aled'', anon_sym_sealed), (''t'', anon_sym_set)]),
     (58, [(''ow'', anon_sym_show)]),
     (59, [(''atic'', anon_sym_static)]),
     (60, [(''per'', anon_sym_super)]),
     (61, [(''itch'', anon_sym_switch)]),
     (62, [(''is'', anon_sym_this), (''row'', anon_sym_throw)]),
     (63, [(''ue'', anon_sym_true), (''y'', anon_sym_try)]),
     (64, [(''pedef'', anon_sym_typedef)]),
     (65, [(''r'', anon_sym_var)]),
     (66, [(''id'', sym_void_type)]),
     (67, [(''en'', anon_sym_when), (''ile'', anon_sym_while)]),
     (68, [(''th'', anon_sym_with)]),
     (69, [(''eld'', anon_sym_yield)]),
     (70, [(''ction'', anon_sym_Function)]),
     (71, [(''tract'', anon_sym_abstract)]),
     (72, [(''ert'', sym_assert_builtin)]),
     (73, [(''it'', anon_sym_await)]),
     (74, [(''e'', anon_sym_base)]),
     (75, [(''l'', anon_sym_bool)]),
     (76, [(''ak'', sym_break_builtin)]),
     (77, [(''e'', anon_sym_case)])]"

definition keyword_residuals_3 :: "(TSStateId \<times> word_list) list" where
  "keyword_residuals_3 = [
     (78, [(''ch'', anon_sym_catch)]),
     (79, [(''ss'', anon_sym_class)]),
     (80, [(''st'', sym_const_builtin), (''tinue'', anon_sym_continue)]),
     (81, [(''ariant'', anon_sym_covariant)]),
     (82, [(''ault'', anon_sym_default), (''erred'', anon_sym_deferred)]),
     (83, [(''ble'', sym_floating_point_type)]),
     (84, [(''amic'', anon_sym_dynamic)]),
     (85, [(''e'', anon_sym_else)]),
     (86, [(''m'', anon_sym_enum)]),
     (87, [(''ort'', anon_sym_export)]),
     (88, [(''ends'', anon_sym_extends), (''ension'', anon_sym_extension), (''ernal'',
       anon_sym_external)]),
     (89, [(''tory'', anon_sym_factory)]),
     (90, [(''se'', anon_sym_false)]),
     (91, [(''al'', anon_sym_final), (''ally'', anon_sym_finally)]),
     (92, [('''', anon_sym_for)]),
     (93, [('''', anon_sym_get)]),
     (94, [(''e'', anon_sym_hide)]),
     (95, [(''lements'', anon_sym_implements), (''ort'', anon_sym_import)]),
     (96, [(''ine'', anon_sym_inline)]),
     (97, [(''erface'', anon_sym_interface)]),
     (98, [(''e'', anon_sym_late)]),
     (99, [(''rary'', anon_sym_library)]),
     (100, [(''in'', anon_sym_mixin)]),
     (101, [(''ive'', anon_sym_native)]),
     (102, [('''', anon_sym_new)]),
     (103, [(''l'', anon_sym_null)]),
     (104, [(''rator'', anon_sym_operator)]),
     (105, [(''t'', anon_sym_part)]),
     (106, [(''uired'', anon_sym_required)]),
     (107, [(''hrow'', sym_rethrow_builtin), (''urn'', anon_sym_return)]),
     (108, [(''led'', anon_sym_sealed)]),
     (109, [('''', anon_sym_set)]),
     (110, [(''w'', anon_sym_show)]),
     (111, [(''tic'', anon_sym_static)]),
     (112, [(''er'', anon_sym_super)]),
     (113, [(''tch'', anon_sym_switch)]),
     (114, [(''s'', anon_sym_this)]),
     (115, [(''ow'', anon_sym_throw)]),
     (116, [(''e'', anon_sym_true)]),
     (117, [('''', anon_sym_try)]),
     (118, [(''edef'', anon_sym_typedef)]),
     (119, [('''', anon_sym_var)]),
     (120, [(''d'', sym_void_type)]),
     (121, [(''n'', anon_sym_when)]),
     (122, [(''le'', anon_sym_while)]),
     (123, [(''h'', anon_sym_with)]),
     (124, [(''ld'', anon_sym_yield)]),
     (125, [(''tion'', anon_sym_Function)])]"

definition keyword_residuals_4 :: "(TSStateId \<times> word_list) list" where
  "keyword_residuals_4 = [
     (126, [(''ract'', anon_sym_abstract)]),
     (127, [(''rt'', sym_assert_builtin)]),
     (128, [(''t'', anon_sym_await)]),
     (129, [('''', anon_sym_base)]),
     (130, [('''', anon_sym_bool)]),
     (131, [(''k'', sym_break_builtin)]),
     (132, [('''', anon_sym_case)]),
     (133, [(''h'', anon_sym_catch)]),
     (134, [(''s'', anon_sym_class)]),
     (135, [(''t'', sym_const_builtin)]),
     (136, [(''inue'', anon_sym_continue)]),
     (137, [(''riant'', anon_sym_covariant)]),
     (138, [(''ult'', anon_sym_default)]),
     (139, [(''rred'', anon_sym_deferred)]),
     (140, [(''le'', sym_floating_point_type)]),
     (141, [(''mic'', anon_sym_dynamic)]),
     (142, [('''', anon_sym_else)]),
     (143, [('''', anon_sym_enum)]),
     (144, [(''rt'', anon_sym_export)]),
     (145, [(''nds'', anon_sym_extends), (''nsion'', anon_sym_extension), (''rnal'',
       anon_sym_external)]),
     (146, [(''ory'', anon_sym_factory)]),
     (147, [(''e'', anon_sym_false)]),
     (148, [(''l'', anon_sym_final), (''lly'', anon_sym_finally)]),
     (149, [('''', anon_sym_hide)]),
     (150, [(''ements'', anon_sym_implements)]),
     (151, [(''rt'', anon_sym_import)]),
     (152, [(''ne'', anon_sym_inline)]),
     (153, [(''rface'', anon_sym_interface)]),
     (154, [('''', anon_sym_late)]),
     (155, [(''ary'', anon_sym_library)]),
     (156, [(''n'', anon_sym_mixin)]),
     (157, [(''ve'', anon_sym_native)]),
     (158, [('''', anon_sym_null)]),
     (159, [(''ator'', anon_sym_operator)]),
     (160, [('''', anon_sym_part)]),
     (161, [(''ired'', anon_sym_required)]),
     (162, [(''row'', sym_rethrow_builtin)]),
     (163, [(''rn'', anon_sym_return)]),
     (164, [(''ed'', anon_sym_sealed)]),
     (165, [('''', anon_sym_show)]),
     (166, [(''ic'', anon_sym_static)]),
     (167, [(''r'', anon_sym_super)]),
     (168, [(''ch'', anon_sym_switch)]),
     (169, [('''', anon_sym_this)]),
     (170, [(''w'', anon_sym_throw)]),
     (171, [('''', anon_sym_true)]),
     (172, [(''def'', anon_sym_typedef)]),
     (173, [('''', sym_void_type)]),
     (174, [('''', anon_sym_when)])]"

definition keyword_residuals_5 :: "(TSStateId \<times> word_list) list" where
  "keyword_residuals_5 = [
     (175, [(''e'', anon_sym_while)]),
     (176, [('''', anon_sym_with)]),
     (177, [(''d'', anon_sym_yield)]),
     (178, [(''ion'', anon_sym_Function)]),
     (179, [(''act'', anon_sym_abstract)]),
     (180, [(''t'', sym_assert_builtin)]),
     (181, [('''', anon_sym_await)]),
     (182, [('''', sym_break_builtin)]),
     (183, [('''', anon_sym_catch)]),
     (184, [('''', anon_sym_class)]),
     (185, [('''', sym_const_builtin)]),
     (186, [(''nue'', anon_sym_continue)]),
     (187, [(''iant'', anon_sym_covariant)]),
     (188, [(''lt'', anon_sym_default)]),
     (189, [(''red'', anon_sym_deferred)]),
     (190, [(''e'', sym_floating_point_type)]),
     (191, [(''ic'', anon_sym_dynamic)]),
     (192, [(''t'', anon_sym_export)]),
     (193, [(''ds'', anon_sym_extends), (''sion'', anon_sym_extension)]),
     (194, [(''nal'', anon_sym_external)]),
     (195, [(''ry'', anon_sym_factory)]),
     (196, [('''', anon_sym_false)]),
     (197, [('''', anon_sym_final), (''ly'', anon_sym_finally)]),
     (198, [(''ments'', anon_sym_implements)]),
     (199, [(''t'', anon_sym_import)]),
     (200, [(''e'', anon_sym_inline)]),
     (201, [(''face'', anon_sym_interface)]),
     (202, [(''ry'', anon_sym_library)]),
     (203, [('''', anon_sym_mixin)]),
     (204, [(''e'', anon_sym_native)]),
     (205, [(''tor'', anon_sym_operator)]),
     (206, [(''red'', anon_sym_required)]),
     (207, [(''ow'', sym_rethrow_builtin)]),
     (208, [(''n'', anon_sym_return)]),
     (209, [(''d'', anon_sym_sealed)]),
     (210, [(''c'', anon_sym_static)]),
     (211, [('''', anon_sym_super)]),
     (212, [(''h'', anon_sym_switch)]),
     (213, [('''', anon_sym_throw)]),
     (214, [(''ef'', anon_sym_typedef)]),
     (215, [('''', anon_sym_while)]),
     (216, [('''', anon_sym_yield)]),
     (217, [(''on'', anon_sym_Function)]),
     (218, [(''ct'', anon_sym_abstract)]),
     (219, [('''', sym_assert_builtin)]),
     (220, [(''ue'', anon_sym_continue)]),
     (221, [(''ant'', anon_sym_covariant)]),
     (222, [(''t'', anon_sym_default)]),
     (223, [(''ed'', anon_sym_deferred)])]"

definition keyword_residuals_6 :: "(TSStateId \<times> word_list) list" where
  "keyword_residuals_6 = [
     (224, [('''', sym_floating_point_type)]),
     (225, [(''c'', anon_sym_dynamic)]),
     (226, [('''', anon_sym_export)]),
     (227, [(''s'', anon_sym_extends)]),
     (228, [(''ion'', anon_sym_extension)]),
     (229, [(''al'', anon_sym_external)]),
     (230, [(''y'', anon_sym_factory)]),
     (231, [(''y'', anon_sym_finally)]),
     (232, [(''ents'', anon_sym_implements)]),
     (233, [('''', anon_sym_import)]),
     (234, [('''', anon_sym_inline)]),
     (235, [(''ace'', anon_sym_interface)]),
     (236, [(''y'', anon_sym_library)]),
     (237, [('''', anon_sym_native)]),
     (238, [(''or'', anon_sym_operator)]),
     (239, [(''ed'', anon_sym_required)]),
     (240, [(''w'', sym_rethrow_builtin)]),
     (241, [('''', anon_sym_return)]),
     (242, [('''', anon_sym_sealed)]),
     (243, [('''', anon_sym_static)]),
     (244, [('''', anon_sym_switch)]),
     (245, [(''f'', anon_sym_typedef)]),
     (246, [(''n'', anon_sym_Function)]),
     (247, [(''t'', anon_sym_abstract)]),
     (248, [(''e'', anon_sym_continue)]),
     (249, [(''nt'', anon_sym_covariant)]),
     (250, [('''', anon_sym_default)]),
     (251, [(''d'', anon_sym_deferred)]),
     (252, [('''', anon_sym_dynamic)]),
     (253, [('''', anon_sym_extends)]),
     (254, [(''on'', anon_sym_extension)]),
     (255, [(''l'', anon_sym_external)]),
     (256, [('''', anon_sym_factory)]),
     (257, [('''', anon_sym_finally)]),
     (258, [(''nts'', anon_sym_implements)]),
     (259, [(''ce'', anon_sym_interface)]),
     (260, [('''', anon_sym_library)]),
     (261, [(''r'', anon_sym_operator)]),
     (262, [(''d'', anon_sym_required)]),
     (263, [('''', sym_rethrow_builtin)]),
     (264, [('''', anon_sym_typedef)]),
     (265, [('''', anon_sym_Function)]),
     (266, [('''', anon_sym_abstract)]),
     (267, [('''', anon_sym_continue)]),
     (268, [(''t'', anon_sym_covariant)]),
     (269, [('''', anon_sym_deferred)]),
     (270, [(''n'', anon_sym_extension)]),
     (271, [('''', anon_sym_external)]),
     (272, [(''ts'', anon_sym_implements)]),
     (273, [(''e'', anon_sym_interface)])]"

definition keyword_residuals_7 :: "(TSStateId \<times> word_list) list" where
  "keyword_residuals_7 = [
     (274, [('''', anon_sym_operator)]),
     (275, [('''', anon_sym_required)]),
     (276, [('''', anon_sym_covariant)]),
     (277, [('''', anon_sym_extension)]),
     (278, [(''s'', anon_sym_implements)]),
     (279, [('''', anon_sym_interface)]),
     (280, [('''', anon_sym_implements)])]"

definition keyword_residuals :: "(TSStateId \<times> word_list) list" where
  "keyword_residuals = keyword_residuals_1 @ keyword_residuals_2 @ keyword_residuals_3 @ keyword_residuals_4 @
     keyword_residuals_5 @ keyword_residuals_6 @ keyword_residuals_7"

definition keyword_words :: "TSStateId \<Rightarrow> word_list" where
  "keyword_words s = (case map_of keyword_residuals s of None \<Rightarrow> [] | Some ws \<Rightarrow> ws)"

subsection \<open>The cases are well formed\<close>

lemma keyword_keys:
  "map fst ts_lex_keywords_cases_1 = [0..<32]"
  "map fst ts_lex_keywords_cases_2 = [32..<78]"
  "map fst ts_lex_keywords_cases_3 = [78..<126]"
  "map fst ts_lex_keywords_cases_4 = [126..<175]"
  "map fst ts_lex_keywords_cases_5 = [175..<224]"
  "map fst ts_lex_keywords_cases_6 = [224..<274]"
  "map fst ts_lex_keywords_cases_7 = [274..<281]"
  by (simp add: ts_lex_keywords_cases_1_def upt_from_0)
    (simp_all add: ts_lex_keywords_cases_2_def ts_lex_keywords_cases_3_def ts_lex_keywords_cases_4_def ts_lex_keywords_cases_5_def ts_lex_keywords_cases_6_def ts_lex_keywords_cases_7_def)

lemma residual_keys:
  "map fst keyword_residuals_1 = [0..<32]"
  "map fst keyword_residuals_2 = [32..<78]"
  "map fst keyword_residuals_3 = [78..<126]"
  "map fst keyword_residuals_4 = [126..<175]"
  "map fst keyword_residuals_5 = [175..<224]"
  "map fst keyword_residuals_6 = [224..<274]"
  "map fst keyword_residuals_7 = [274..<281]"
  by (simp add: keyword_residuals_1_def upt_from_0)
    (simp_all add: keyword_residuals_2_def keyword_residuals_3_def keyword_residuals_4_def keyword_residuals_5_def keyword_residuals_6_def keyword_residuals_7_def)

lemma residual_keys_all: "map fst keyword_residuals = [0..<281]"
  by (simp add: keyword_residuals_def residual_keys upt_join del: upt_rec_numeral)

lemma keyword_words_all: "list_all (\<lambda>(s, ws). keyword_words s = ws) keyword_residuals"
  using map_of_all [of keyword_residuals] by (auto simp: residual_keys_all keyword_words_def list_all_iff)

lemmas keyword_words_eqs = keyword_words_all [unfolded keyword_residuals_def list_all_append
    keyword_residuals_1_def keyword_residuals_2_def keyword_residuals_3_def
    keyword_residuals_4_def keyword_residuals_5_def keyword_residuals_6_def
    keyword_residuals_7_def list.pred_inject prod.case One_nat_def]

lemma keyword_cases_ok_1: "list_all (\<lambda>(s, b). case_ok 281 [] b) ts_lex_keywords_cases_1"
  by (simp add: case_ok_def ts_lex_keywords_cases_1_def)

lemma keyword_cases_ok_2: "list_all (\<lambda>(s, b). case_ok 281 [] b) ts_lex_keywords_cases_2"
  by (simp add: case_ok_def ts_lex_keywords_cases_2_def)

lemma keyword_cases_ok_3: "list_all (\<lambda>(s, b). case_ok 281 [] b) ts_lex_keywords_cases_3"
  by (simp add: case_ok_def ts_lex_keywords_cases_3_def)

lemma keyword_cases_ok_4: "list_all (\<lambda>(s, b). case_ok 281 [] b) ts_lex_keywords_cases_4"
  by (simp add: case_ok_def ts_lex_keywords_cases_4_def)

lemma keyword_cases_ok_5: "list_all (\<lambda>(s, b). case_ok 281 [] b) ts_lex_keywords_cases_5"
  by (simp add: case_ok_def ts_lex_keywords_cases_5_def)

lemma keyword_cases_ok_6: "list_all (\<lambda>(s, b). case_ok 281 [] b) ts_lex_keywords_cases_6"
  by (simp add: case_ok_def ts_lex_keywords_cases_6_def)

lemma keyword_cases_ok_7: "list_all (\<lambda>(s, b). case_ok 281 [] b) ts_lex_keywords_cases_7"
  by (simp add: case_ok_def ts_lex_keywords_cases_7_def)

lemmas keyword_trie_simps = trie_ok_def empty_symbol_def is_blank_def keyword_words_eqs

text \<open>
  The root is checked first: the residuals of the whole list after each of the first letters.
\<close>

lemma root_residuals:
  "residual 70 (keyword_words 0) = keyword_words (Suc 0)" "residual 97 (keyword_words 0) = keyword_words 2"
  "residual 98 (keyword_words 0) = keyword_words 3" "residual 99 (keyword_words 0) = keyword_words 4"
  "residual 100 (keyword_words 0) = keyword_words 5" "residual 101 (keyword_words 0) = keyword_words 6"
  "residual 102 (keyword_words 0) = keyword_words 7" "residual 103 (keyword_words 0) = keyword_words 8"
  "residual 104 (keyword_words 0) = keyword_words 9" "residual 105 (keyword_words 0) = keyword_words 10"
  "residual 108 (keyword_words 0) = keyword_words 11" "residual 109 (keyword_words 0) = keyword_words 12"
  "residual 110 (keyword_words 0) = keyword_words 13" "residual 111 (keyword_words 0) = keyword_words 14"
  "residual 112 (keyword_words 0) = keyword_words 15" "residual 114 (keyword_words 0) = keyword_words 16"
  "residual 115 (keyword_words 0) = keyword_words 17" "residual 116 (keyword_words 0) = keyword_words 18"
  "residual 118 (keyword_words 0) = keyword_words 19" "residual 119 (keyword_words 0) = keyword_words 20"
  "residual 121 (keyword_words 0) = keyword_words 21"
  by (simp_all add: keyword_words_eqs)

lemma root_residual_other:
  "c \<notin> {70, 97, 98, 99, 100, 101, 102, 103, 104, 105, 108, 109, 110, 111, 112, 114, 115, 116, 118, 119, 121} \<Longrightarrow>
     residual c (keyword_words 0) = []"
  by (simp add: keyword_words_eqs)

lemma root_empty_symbol: "empty_symbol (keyword_words 0) = None"
  by (simp add: keyword_words_eqs empty_symbol_def)

lemma keyword_trie_0: "trie_ok keyword_words 0 (snd (hd ts_lex_keywords_cases_1))"
  by (simp add: trie_ok_def is_blank_def root_empty_symbol root_residuals root_residual_other ts_lex_keywords_cases_1_def)

lemma keyword_trie_1: "list_all (\<lambda>(s, b). trie_ok keyword_words s b) ts_lex_keywords_cases_1"
proof -
  have "ts_lex_keywords_cases_1 = (0, snd (hd ts_lex_keywords_cases_1)) # tl ts_lex_keywords_cases_1"
    by (simp add: ts_lex_keywords_cases_1_def)
  moreover have "list_all (\<lambda>(s, b). trie_ok keyword_words s b) (tl ts_lex_keywords_cases_1)"
    by (simp add: keyword_trie_simps ts_lex_keywords_cases_1_def)
  ultimately show ?thesis using keyword_trie_0 by (metis (mono_tags, lifting) list.pred_inject(2) prod.case)
qed

lemma keyword_trie_2: "list_all (\<lambda>(s, b). trie_ok keyword_words s b) ts_lex_keywords_cases_2"
  by (simp add: keyword_trie_simps ts_lex_keywords_cases_2_def)

lemma keyword_trie_3: "list_all (\<lambda>(s, b). trie_ok keyword_words s b) ts_lex_keywords_cases_3"
  by (simp add: keyword_trie_simps ts_lex_keywords_cases_3_def)

lemma keyword_trie_4: "list_all (\<lambda>(s, b). trie_ok keyword_words s b) ts_lex_keywords_cases_4"
  by (simp add: keyword_trie_simps ts_lex_keywords_cases_4_def)

lemma keyword_trie_5: "list_all (\<lambda>(s, b). trie_ok keyword_words s b) ts_lex_keywords_cases_5"
  by (simp add: keyword_trie_simps ts_lex_keywords_cases_5_def)

lemma keyword_trie_6: "list_all (\<lambda>(s, b). trie_ok keyword_words s b) ts_lex_keywords_cases_6"
  by (simp add: keyword_trie_simps ts_lex_keywords_cases_6_def)

lemma keyword_trie_7: "list_all (\<lambda>(s, b). trie_ok keyword_words s b) ts_lex_keywords_cases_7"
  by (simp add: keyword_trie_simps ts_lex_keywords_cases_7_def)

lemma keyword_keys_all: "map fst ts_lex_keywords_cases = [0..<281]"
  by (simp add: ts_lex_keywords_cases_def keyword_keys upt_join del: upt_rec_numeral)

interpretation kw: lex_switch ts_lex_keywords_switch
  unfolding ts_lex_keywords_switch_def
  by (rule lex_switchI [OF keyword_keys_all, of "[]"])
    (simp_all add: ts_lex_keywords_cases_def keyword_cases_ok_1 keyword_cases_ok_2
      keyword_cases_ok_3 keyword_cases_ok_4 keyword_cases_ok_5 keyword_cases_ok_6
      keyword_cases_ok_7)

lemma keyword_words_0: "keyword_words 0 = dart_keywords"
  by (simp add: keyword_words_eqs dart_keywords_def)

lemma keyword_trie_all: "list_all (\<lambda>(s, b). trie_ok keyword_words s b) ts_lex_keywords_cases"
  by (simp add: ts_lex_keywords_cases_def keyword_trie_1 keyword_trie_2 keyword_trie_3
      keyword_trie_4 keyword_trie_5 keyword_trie_6 keyword_trie_7)

interpretation keyword_trie: trie_switch ts_lex_keywords_switch keyword_words 0
  unfolding ts_lex_keywords_switch_def
  using trie_switchI [OF kw.lex_switch_axioms [unfolded ts_lex_keywords_switch_def] keyword_trie_all
      _ root_empty_symbol] map_of_upt_keys [OF keyword_keys_all, of 0]
  by simp

subsection \<open>The keyword lexer\<close>

text \<open>
  What the lexer is to find: \<open>longest_keyword inp w e sy\<close> says that the reserved word \<open>w\<close> with the
  symbol \<open>sy\<close> stands in front of \<open>inp\<close>, \<open>e\<close> follows it, and no longer reserved word stands there.
\<close>

definition longest_keyword ::
  "code_point list \<Rightarrow> string \<Rightarrow> code_point list \<Rightarrow> TSSymbol \<Rightarrow> bool" where
  "longest_keyword inp w e sy \<longleftrightarrow>
     inp = codes w @ e \<and> map_of dart_keywords w = Some sy \<and>
     (\<forall>w' sy'. map_of dart_keywords w' = Some sy' \<longrightarrow> prefix (codes w') inp \<longrightarrow>
        length w' \<le> length w)"

definition no_keyword :: "code_point list \<Rightarrow> bool" where
  "no_keyword inp \<longleftrightarrow> (\<forall>w sy. map_of dart_keywords w = Some sy \<longrightarrow> \<not> prefix (codes w) inp)"

lemma ts_lex_keywords_word:
  assumes "tslexer ops valid rest start mark" and "valid l" and "start l = rest l"
  shows "\<exists>l'. ts_lex_keywords ops 0 l =
      Some (accepted (longest_word (dropWhile is_blank (rest l)) dart_keywords), l') \<and>
    start l' = dropWhile is_blank (rest l) \<and>
    records mark l (longest_word (dropWhile is_blank (rest l)) dart_keywords) l'"
proof -
  have client: "lex_client ops valid rest start mark ts_lex_keywords_switch"
    by (rule lex_client.intro [OF assms(1) kw.lex_switch_axioms])
  have "lex_word ts_lex_keywords_switch (rest l) 0 (start l) None =
      (dropWhile is_blank (rest l), longest_word (dropWhile is_blank (rest l)) dart_keywords)"
    using keyword_trie.lex_word_root [of "rest l"] by (simp add: assms(3) keyword_words_0)
  from lex_client.lex_loop_word [OF client assms(2) _ keyword_trie.root_sw this, of l] show ?thesis
    by (auto simp: ts_lex_keywords_def records_def)
qed

lemma dart_keywords_distinct: "distinct (map fst dart_keywords)"
  by (simp add: dart_keywords_def)

lemma ts_lex_keywords_symbol:
  assumes "tslexer ops valid rest start mark" and "valid l" and "start l = rest l"
  shows "\<exists>k l'. ts_lex_keywords ops 0 l = Some (k, l') \<and>
    (k \<longrightarrow> result_symbol l' \<in> set (map snd dart_keywords))"
proof -
  let ?inp = "dropWhile is_blank (rest l)"
  from ts_lex_keywords_word [OF assms] obtain l' where
    l': "ts_lex_keywords ops 0 l = Some (accepted (longest_word ?inp dart_keywords), l')"
      "records mark l (longest_word ?inp dart_keywords) l'"
    by blast
  show ?thesis
  proof (cases "longest_word ?inp dart_keywords")
    case None
    with l'(1) have "ts_lex_keywords ops 0 l = Some (False, l')" by simp
    then show ?thesis by blast
  next
    case (Some tok)
    obtain sy e where tok: "tok = (sy, e)" by (cases tok)
    from longest_word_Some [OF Some [unfolded tok]] obtain w where "map_of dart_keywords w = Some sy" by blast
    then have "(w, sy) \<in> set dart_keywords" by (rule map_of_SomeD)
    then have "sy \<in> set (map snd dart_keywords)" by force
    with l'(2) Some tok have "result_symbol l' \<in> set (map snd dart_keywords)" by (simp add: records_def)
    with l'(1) show ?thesis by blast
  qed
qed

text \<open>A reserved word that stands alone.\<close>

lemma keyword_no_blank: "list_all (\<lambda>(w, sy). dropWhile is_blank (codes w) = codes w) dart_keywords"
  by (simp add: dart_keywords_def is_blank_def)

lemma ts_lex_keywords_self:
  assumes "tslexer ops valid rest start mark" and "valid l" and "start l = rest l"
    and "map_of dart_keywords w = Some sy" and "rest l = codes w"
  shows "\<exists>l'. ts_lex_keywords ops 0 l = Some (True, l') \<and> result_symbol l' = sy \<and>
    start l' = codes w \<and> mark l' = Some []"
  using ts_lex_keywords_word [OF assms(1-3)] longest_word_self [OF assms(4)]
    map_of_list_all [OF keyword_no_blank assms(4)] assms(5)
  by (auto simp: records_def)

text \<open>
  C9. On every input the keyword lexer, started in its initial state as the runtime starts it,
  returns. It skips the white space in front. It returns true exactly when a reserved word of the
  grammar stands at the front of what follows; the result symbol is then that of the longest such
  word and the token ends right after it. Otherwise the result symbol and the mark are untouched.
\<close>

theorem ts_lex_keywords_longest:
  assumes "tslexer ops valid rest start mark" and "valid l" and "start l = rest l"
  shows "let inp = dropWhile is_blank (rest l) in
    \<exists>r l'. ts_lex_keywords ops 0 l = Some (r, l') \<and> start l' = inp \<and>
      (if r then \<exists>w e. longest_keyword inp w e (result_symbol l') \<and> mark l' = Some e
       else no_keyword inp \<and> result_symbol l' = result_symbol l \<and> mark l' = mark l)"
proof -
  define inp where "inp = dropWhile is_blank (rest l)"
  from ts_lex_keywords_word [OF assms]
  obtain l' where l': "ts_lex_keywords ops 0 l = Some (accepted (longest_word inp dart_keywords), l')"
      "start l' = inp" "records mark l (longest_word inp dart_keywords) l'"
    by (auto simp: inp_def)
  show ?thesis
  proof (cases "longest_word inp dart_keywords")
    case None
    then have "no_keyword inp" using longest_word_None by (auto simp: no_keyword_def)
    with l' None show ?thesis by (auto simp: records_def simp flip: inp_def)
  next
    case (Some tok)
    obtain sy e where "tok = (sy, e)" by (cases tok)
    with Some longest_word_Some [of inp dart_keywords sy e]
    have "\<exists>w. longest_keyword inp w e sy" by (auto simp: longest_keyword_def)
    with l' Some \<open>tok = (sy, e)\<close> show ?thesis by (auto simp: records_def simp flip: inp_def)
  qed
qed

theorem ts_lex_keywords_longest_witness:
  "\<exists>l'. ts_lex_keywords buf_ops 0 (buf_init (codes '' final'')) = Some (True, l')"
proof -
  let ?inp = "codes '' final''"
  have blank: "dropWhile is_blank ?inp = codes ''final''" by (simp add: is_blank_def)
  have from_rest: "buf_from (buf_init ?inp) = buf_rest (buf_init ?inp)" by simp
  have "map_of dart_keywords ''final'' = Some anon_sym_final" by (simp add: dart_keywords_def)
  then have "\<not> no_keyword (codes ''final'')" unfolding no_keyword_def by blast
  then show ?thesis
    using ts_lex_keywords_longest [OF buf.tslexer_axioms buf_init_simps(1) from_rest]
    unfolding Let_def buf_init_simps blank by (metis (full_types))
qed

end
