(* ===== verification/Dart_Lex.thy ===== *)
theory Dart_Lex
  imports Lexemes C_Chars Dart_Symbols
begin

text \<open>
  The main lexer \<^verbatim>\<open>ts_lex\<close> of \<^verbatim>\<open>parser.c\<close>: its 292 cases, the switch and the function.
\<close>

subsection \<open>The cases of the switch\<close>

definition ts_lex_cases_1 :: "(TSStateId \<times> lex_body) list" where
  "ts_lex_cases_1 = [
     (0, \<lambda>eof la. NO_TOKEN (
        if eof then ADVANCE 103 else
        ADVANCE_MAP [
          (c_BANG, 217), (c_DQUOTE, 112), (c_POUND, 105), (c_DOLLAR, 119), (c_PERCENT, 208),
          (c_AMP, 189), (c_SQUOTE, 114), (c_LPAREN, 140), (c_RPAREN, 141), (c_STAR, 204),
          (c_PLUS, 198), (c_COMMA, 137), (c_DASH, 215), (c_DOT, 225), (c_SLASH, 206),
          (c_0, 106), (c_COLON, 139), (c_SEMI, 234), (c_LT, 174), (c_EQ, 145), (c_GT, 180),
          (c_QMARK, 164), (c_AT, 236), (c_LBRACK, 136), (c_BSLASH, 85), (c_RBRACK, 138),
          (c_CARET, 187), (c_a, 261), (c_p, 255), (c_r, 253), (c_s, 265), (c_LBRACE, 123),
          (c_PIPE, 184), (c_RBRACE, 124), (c_TILDE, 219)] la (
        if c_TAB \<le> la \<and> la \<le> c_CR \<or> la = c_SPACE then SKIP 99 else
        if c_1 \<le> la \<and> la \<le> c_9 then ADVANCE 107 else
        if c_A \<le> la \<and> la \<le> c_UNDERSCORE \<or> c_b \<le> la \<and> la \<le> c_z then ADVANCE 267 else
        END_STATE))),
     (1, \<lambda>eof la. NO_TOKEN (
        if la = c_LF then ADVANCE 248 else
        if la = c_SLASH then ADVANCE 42 else
        if c_TAB \<le> la \<and> la \<le> c_CR \<or> la = c_SPACE then SKIP 1 else
        END_STATE)),
     (2, \<lambda>eof la. NO_TOKEN (
        if la = c_LF then SKIP 2 else
        if la = c_SLASH then ADVANCE 245 else
        if c_TAB \<le> la \<and> la \<le> c_CR \<or> la = c_SPACE then ADVANCE 246 else
        if la \<noteq> 0 then ADVANCE 247 else
        END_STATE)),
     (3, \<lambda>eof la. NO_TOKEN (
        ADVANCE_MAP [
          (c_BANG, 217), (c_DQUOTE, 112), (c_POUND, 104), (c_PERCENT, 207), (c_AMP, 188),
          (c_SQUOTE, 114), (c_LPAREN, 140), (c_STAR, 203), (c_PLUS, 197), (c_COMMA, 137),
          (c_DASH, 214), (c_DOT, 227), (c_SLASH, 205), (c_0, 106), (c_COLON, 139),
          (c_SEMI, 234), (c_LT, 175), (c_EQ, 143), (c_GT, 181), (c_QMARK, 165), (c_AT, 236),
          (c_LBRACK, 136), (c_CARET, 186), (c_a, 262), (c_r, 253), (c_LBRACE, 123),
          (c_PIPE, 185), (c_RBRACE, 124), (c_TILDE, 220)] la (
        if c_TAB \<le> la \<and> la \<le> c_CR \<or> la = c_SPACE then SKIP 3 else
        if c_1 \<le> la \<and> la \<le> c_9 then ADVANCE 107 else
        if la = c_DOLLAR \<or> c_A \<le> la \<and> la \<le> c_Z \<or> la = c_UNDERSCORE \<or> c_b \<le> la \<and> la \<le> c_z then ADVANCE 267 else
        END_STATE))),
     (4, \<lambda>eof la. NO_TOKEN (
        ADVANCE_MAP [
          (c_BANG, 217), (c_DQUOTE, 112), (c_POUND, 104), (c_SQUOTE, 114), (c_LPAREN, 140),
          (c_RPAREN, 141), (c_PLUS, 48), (c_COMMA, 137), (c_DASH, 214), (c_DOT, 51),
          (c_SLASH, 42), (c_0, 106), (c_COLON, 139), (c_LT, 177), (c_EQ, 56), (c_GT, 179),
          (c_QMARK, 162), (c_AT, 236), (c_LBRACK, 136), (c_RBRACK, 138), (c_r, 253),
          (c_LBRACE, 123), (c_TILDE, 218)] la (
        if c_TAB \<le> la \<and> la \<le> c_CR \<or> la = c_SPACE then SKIP 4 else
        if c_1 \<le> la \<and> la \<le> c_9 then ADVANCE 107 else
        if la = c_DOLLAR \<or> c_A \<le> la \<and> la \<le> c_Z \<or> la = c_UNDERSCORE \<or> c_a \<le> la \<and> la \<le> c_z then ADVANCE 267 else
        END_STATE)))]"

definition ts_lex_cases_2 :: "(TSStateId \<times> lex_body) list" where
  "ts_lex_cases_2 = [
     (5, \<lambda>eof la. NO_TOKEN (
        ADVANCE_MAP [
          (c_BANG, 217), (c_DQUOTE, 112), (c_PERCENT, 207), (c_AMP, 188), (c_SQUOTE, 114),
          (c_LPAREN, 140), (c_RPAREN, 141), (c_STAR, 203), (c_COMMA, 137), (c_DOT, 224),
          (c_SLASH, 205), (c_COLON, 139), (c_LT, 175), (c_EQ, 57), (c_GT, 181),
          (c_QMARK, 169), (c_LBRACK, 136), (c_RBRACK, 138), (c_CARET, 186), (c_a, 262),
          (c_r, 253), (c_PIPE, 185), (c_RBRACE, 124), (c_TILDE, 53), (c_PLUS, 196),
          (c_DASH, 196)] la (
        if c_TAB \<le> la \<and> la \<le> c_CR \<or> la = c_SPACE then SKIP 5 else
        if la = c_DOLLAR \<or> c_A \<le> la \<and> la \<le> c_Z \<or> la = c_UNDERSCORE \<or> c_b \<le> la \<and> la \<le> c_z then ADVANCE 267 else
        END_STATE))),
     (6, \<lambda>eof la. NO_TOKEN (
        ADVANCE_MAP [
          (c_BANG, 217), (c_DQUOTE, 112), (c_PERCENT, 207), (c_AMP, 188), (c_SQUOTE, 114),
          (c_LPAREN, 140), (c_RPAREN, 141), (c_STAR, 203), (c_COMMA, 137), (c_DOT, 226),
          (c_SLASH, 205), (c_COLON, 139), (c_SEMI, 234), (c_LT, 175), (c_EQ, 144),
          (c_GT, 181), (c_QMARK, 165), (c_LBRACK, 136), (c_RBRACK, 138), (c_CARET, 186),
          (c_a, 262), (c_r, 253), (c_LBRACE, 123), (c_PIPE, 185), (c_RBRACE, 124),
          (c_TILDE, 53), (c_PLUS, 196), (c_DASH, 196)] la (
        if c_TAB \<le> la \<and> la \<le> c_CR \<or> la = c_SPACE then SKIP 6 else
        if la = c_DOLLAR \<or> c_A \<le> la \<and> la \<le> c_Z \<or> la = c_UNDERSCORE \<or> c_b \<le> la \<and> la \<le> c_z then ADVANCE 267 else
        END_STATE))),
     (7, \<lambda>eof la. NO_TOKEN (
        ADVANCE_MAP [
          (c_BANG, 217), (c_DQUOTE, 112), (c_PERCENT, 207), (c_AMP, 188), (c_SQUOTE, 114),
          (c_LPAREN, 140), (c_STAR, 203), (c_COMMA, 137), (c_DOT, 226), (c_SLASH, 205),
          (c_SEMI, 234), (c_LT, 175), (c_EQ, 144), (c_GT, 181), (c_QMARK, 165),
          (c_LBRACK, 136), (c_CARET, 186), (c_a, 261), (c_r, 253), (c_s, 265),
          (c_LBRACE, 123), (c_PIPE, 185), (c_TILDE, 53), (c_PLUS, 196), (c_DASH, 196)] la (
        if c_TAB \<le> la \<and> la \<le> c_CR \<or> la = c_SPACE then SKIP 7 else
        if la = c_DOLLAR \<or> c_A \<le> la \<and> la \<le> c_Z \<or> la = c_UNDERSCORE \<or> c_b \<le> la \<and> la \<le> c_z then ADVANCE 267 else
        END_STATE))),
     (8, \<lambda>eof la. NO_TOKEN (
        ADVANCE_MAP [
          (c_BANG, 217), (c_PERCENT, 208), (c_AMP, 189), (c_LPAREN, 140), (c_RPAREN, 141),
          (c_STAR, 204), (c_PLUS, 198), (c_COMMA, 137), (c_DASH, 200), (c_DOT, 224),
          (c_SLASH, 206), (c_COLON, 139), (c_LT, 174), (c_EQ, 144), (c_GT, 180),
          (c_QMARK, 168), (c_LBRACK, 136), (c_RBRACK, 138), (c_CARET, 187), (c_a, 262),
          (c_PIPE, 184), (c_RBRACE, 124), (c_TILDE, 52)] la (
        if c_TAB \<le> la \<and> la \<le> c_CR \<or> la = c_SPACE then SKIP 8 else
        if la = c_DOLLAR \<or> c_A \<le> la \<and> la \<le> c_Z \<or> la = c_UNDERSCORE \<or> c_b \<le> la \<and> la \<le> c_z then ADVANCE 267 else
        END_STATE)))]"

definition ts_lex_cases_3 :: "(TSStateId \<times> lex_body) list" where
  "ts_lex_cases_3 = [
     (9, \<lambda>eof la. NO_TOKEN (
        ADVANCE_MAP [
          (c_BANG, 217), (c_PERCENT, 208), (c_AMP, 189), (c_LPAREN, 140), (c_RPAREN, 141),
          (c_STAR, 204), (c_PLUS, 198), (c_COMMA, 137), (c_DASH, 200), (c_DOT, 226),
          (c_SLASH, 206), (c_COLON, 139), (c_SEMI, 234), (c_LT, 174), (c_EQ, 144),
          (c_GT, 180), (c_QMARK, 164), (c_LBRACK, 136), (c_RBRACK, 138), (c_CARET, 187),
          (c_a, 262), (c_PIPE, 184), (c_RBRACE, 124), (c_TILDE, 52)] la (
        if c_TAB \<le> la \<and> la \<le> c_CR \<or> la = c_SPACE then SKIP 9 else
        if la = c_DOLLAR \<or> c_A \<le> la \<and> la \<le> c_Z \<or> la = c_UNDERSCORE \<or> c_b \<le> la \<and> la \<le> c_z then ADVANCE 267 else
        END_STATE))),
     (10, \<lambda>eof la. NO_TOKEN (
        ADVANCE_MAP [
          (c_BANG, 217), (c_PERCENT, 208), (c_AMP, 189), (c_LPAREN, 140), (c_RPAREN, 141),
          (c_STAR, 204), (c_PLUS, 201), (c_COMMA, 137), (c_DASH, 202), (c_DOT, 226),
          (c_SLASH, 206), (c_COLON, 139), (c_SEMI, 234), (c_LT, 174), (c_EQ, 144),
          (c_GT, 180), (c_QMARK, 164), (c_LBRACK, 136), (c_RBRACK, 138), (c_CARET, 187),
          (c_a, 262), (c_PIPE, 184), (c_RBRACE, 124), (c_TILDE, 52)] la (
        if c_TAB \<le> la \<and> la \<le> c_CR \<or> la = c_SPACE then SKIP 10 else
        if la = c_DOLLAR \<or> c_A \<le> la \<and> la \<le> c_Z \<or> la = c_UNDERSCORE \<or> c_b \<le> la \<and> la \<le> c_z then ADVANCE 267 else
        END_STATE))),
     (11, \<lambda>eof la. NO_TOKEN (
        ADVANCE_MAP [
          (c_BANG, 217), (c_PERCENT, 208), (c_AMP, 189), (c_LPAREN, 140), (c_STAR, 204),
          (c_PLUS, 198), (c_COMMA, 137), (c_DASH, 200), (c_DOT, 226), (c_SLASH, 206),
          (c_SEMI, 234), (c_LT, 174), (c_EQ, 144), (c_GT, 180), (c_QMARK, 164),
          (c_LBRACK, 136), (c_CARET, 187), (c_a, 261), (c_s, 265), (c_LBRACE, 123),
          (c_PIPE, 184), (c_TILDE, 52)] la (
        if c_TAB \<le> la \<and> la \<le> c_CR \<or> la = c_SPACE then SKIP 11 else
        if la = c_DOLLAR \<or> c_A \<le> la \<and> la \<le> c_Z \<or> la = c_UNDERSCORE \<or> c_b \<le> la \<and> la \<le> c_z then ADVANCE 267 else
        END_STATE))),
     (12, \<lambda>eof la. NO_TOKEN (
        ADVANCE_MAP [
          (c_BANG, 217), (c_PERCENT, 208), (c_AMP, 189), (c_LPAREN, 140), (c_STAR, 204),
          (c_PLUS, 201), (c_COMMA, 137), (c_DASH, 202), (c_DOT, 226), (c_SLASH, 206),
          (c_SEMI, 234), (c_LT, 174), (c_EQ, 144), (c_GT, 180), (c_QMARK, 164),
          (c_LBRACK, 136), (c_CARET, 187), (c_a, 261), (c_s, 265), (c_LBRACE, 123),
          (c_PIPE, 184), (c_TILDE, 52)] la (
        if c_TAB \<le> la \<and> la \<le> c_CR \<or> la = c_SPACE then SKIP 12 else
        if la = c_DOLLAR \<or> c_A \<le> la \<and> la \<le> c_Z \<or> la = c_UNDERSCORE \<or> c_b \<le> la \<and> la \<le> c_z then ADVANCE 267 else
        END_STATE)))]"

definition ts_lex_cases_4 :: "(TSStateId \<times> lex_body) list" where
  "ts_lex_cases_4 = [
     (13, \<lambda>eof la. NO_TOKEN (
        ADVANCE_MAP [
          (c_BANG, 217), (c_PERCENT, 207), (c_AMP, 188), (c_LPAREN, 140), (c_RPAREN, 141),
          (c_STAR, 203), (c_PLUS, 197), (c_COMMA, 137), (c_DASH, 199), (c_DOT, 224),
          (c_SLASH, 205), (c_COLON, 139), (c_LT, 175), (c_EQ, 57), (c_GT, 181),
          (c_QMARK, 169), (c_LBRACK, 136), (c_RBRACK, 138), (c_CARET, 186), (c_a, 262),
          (c_PIPE, 185), (c_RBRACE, 124), (c_TILDE, 53)] la (
        if c_TAB \<le> la \<and> la \<le> c_CR \<or> la = c_SPACE then SKIP 13 else
        if la = c_DOLLAR \<or> c_A \<le> la \<and> la \<le> c_Z \<or> la = c_UNDERSCORE \<or> c_b \<le> la \<and> la \<le> c_z then ADVANCE 267 else
        END_STATE))),
     (14, \<lambda>eof la. NO_TOKEN (
        ADVANCE_MAP [
          (c_BANG, 217), (c_PERCENT, 207), (c_AMP, 188), (c_LPAREN, 140), (c_RPAREN, 141),
          (c_STAR, 203), (c_PLUS, 197), (c_COMMA, 137), (c_DASH, 199), (c_DOT, 226),
          (c_SLASH, 205), (c_COLON, 139), (c_SEMI, 234), (c_LT, 175), (c_EQ, 57),
          (c_GT, 181), (c_QMARK, 165), (c_LBRACK, 136), (c_RBRACK, 138), (c_CARET, 186),
          (c_a, 262), (c_PIPE, 185), (c_RBRACE, 124), (c_TILDE, 53)] la (
        if c_TAB \<le> la \<and> la \<le> c_CR \<or> la = c_SPACE then SKIP 14 else
        if la = c_DOLLAR \<or> c_A \<le> la \<and> la \<le> c_Z \<or> la = c_UNDERSCORE \<or> c_b \<le> la \<and> la \<le> c_z then ADVANCE 267 else
        END_STATE))),
     (15, \<lambda>eof la. NO_TOKEN (
        ADVANCE_MAP [
          (c_BANG, 217), (c_PERCENT, 207), (c_AMP, 188), (c_LPAREN, 140), (c_STAR, 203),
          (c_PLUS, 197), (c_COMMA, 137), (c_DASH, 199), (c_DOT, 226), (c_SLASH, 205),
          (c_SEMI, 234), (c_LT, 175), (c_EQ, 57), (c_GT, 181), (c_QMARK, 165),
          (c_LBRACK, 136), (c_CARET, 186), (c_a, 261), (c_s, 265), (c_LBRACE, 123),
          (c_PIPE, 185), (c_TILDE, 53)] la (
        if c_TAB \<le> la \<and> la \<le> c_CR \<or> la = c_SPACE then SKIP 15 else
        if la = c_DOLLAR \<or> c_A \<le> la \<and> la \<le> c_Z \<or> la = c_UNDERSCORE \<or> c_b \<le> la \<and> la \<le> c_z then ADVANCE 267 else
        END_STATE))),
     (16, \<lambda>eof la. NO_TOKEN (
        if la = c_BANG then ADVANCE 244 else
        END_STATE)),
     (17, \<lambda>eof la. NO_TOKEN (
        ADVANCE_MAP [
          (c_BANG, 216), (c_DQUOTE, 112), (c_DOLLAR, 118), (c_AMP, 37), (c_SQUOTE, 113),
          (c_RPAREN, 141), (c_COMMA, 137), (c_SLASH, 42), (c_EQ, 142), (c_QMARK, 162),
          (c_BSLASH, 85), (c_RBRACK, 138), (c_a, 83), (c_PIPE, 89), (c_RBRACE, 124)] la (
        if c_TAB \<le> la \<and> la \<le> c_CR \<or> la = c_SPACE then SKIP 18 else
        END_STATE))),
     (18, \<lambda>eof la. NO_TOKEN (
        ADVANCE_MAP [
          (c_BANG, 216), (c_DQUOTE, 112), (c_DOLLAR, 118), (c_AMP, 37), (c_SQUOTE, 113),
          (c_RPAREN, 141), (c_COMMA, 137), (c_SLASH, 42), (c_EQ, 142), (c_QMARK, 162),
          (c_RBRACK, 138), (c_a, 83), (c_PIPE, 89), (c_RBRACE, 124)] la (
        if c_TAB \<le> la \<and> la \<le> c_CR \<or> la = c_SPACE then SKIP 18 else
        END_STATE)))]"

definition ts_lex_cases_5 :: "(TSStateId \<times> lex_body) list" where
  "ts_lex_cases_5 = [
     (19, \<lambda>eof la. NO_TOKEN (
        ADVANCE_MAP [
          (c_BANG, 216), (c_DQUOTE, 112), (c_PERCENT, 207), (c_AMP, 188), (c_SQUOTE, 114),
          (c_LPAREN, 140), (c_RPAREN, 141), (c_STAR, 203), (c_COMMA, 137), (c_DOT, 224),
          (c_SLASH, 205), (c_COLON, 139), (c_LT, 175), (c_EQ, 63), (c_GT, 181),
          (c_QMARK, 162), (c_LBRACK, 73), (c_RBRACK, 138), (c_CARET, 186), (c_a, 262),
          (c_r, 253), (c_PIPE, 185), (c_RBRACE, 124), (c_TILDE, 220), (c_PLUS, 196),
          (c_DASH, 196)] la (
        if c_TAB \<le> la \<and> la \<le> c_CR \<or> la = c_SPACE then SKIP 19 else
        if la = c_DOLLAR \<or> c_A \<le> la \<and> la \<le> c_Z \<or> la = c_UNDERSCORE \<or> c_b \<le> la \<and> la \<le> c_z then ADVANCE 267 else
        END_STATE))),
     (20, \<lambda>eof la. NO_TOKEN (
        ADVANCE_MAP [
          (c_BANG, 216), (c_DQUOTE, 111), (c_DOLLAR, 118), (c_SQUOTE, 114), (c_LPAREN, 140),
          (c_COMMA, 137), (c_DOT, 226), (c_SLASH, 42), (c_SEMI, 234), (c_LT, 173),
          (c_EQ, 71), (c_QMARK, 163), (c_LBRACK, 136), (c_BSLASH, 85), (c_a, 84), (c_s, 86),
          (c_LBRACE, 123)] la (
        if c_TAB \<le> la \<and> la \<le> c_CR \<or> la = c_SPACE then SKIP 21 else
        END_STATE))),
     (21, \<lambda>eof la. NO_TOKEN (
        ADVANCE_MAP [
          (c_BANG, 216), (c_DQUOTE, 111), (c_DOLLAR, 118), (c_SQUOTE, 114), (c_LPAREN, 140),
          (c_COMMA, 137), (c_DOT, 226), (c_SLASH, 42), (c_SEMI, 234), (c_LT, 173),
          (c_EQ, 71), (c_QMARK, 163), (c_LBRACK, 136), (c_a, 84), (c_s, 86), (c_LBRACE, 123)] la (
        if c_TAB \<le> la \<and> la \<le> c_CR \<or> la = c_SPACE then SKIP 21 else
        END_STATE))),
     (22, \<lambda>eof la. NO_TOKEN (
        ADVANCE_MAP [
          (c_BANG, 216), (c_PERCENT, 58), (c_AMP, 59), (c_LPAREN, 140), (c_RPAREN, 141),
          (c_STAR, 60), (c_PLUS, 61), (c_COMMA, 137), (c_DASH, 62), (c_DOT, 226),
          (c_SLASH, 43), (c_COLON, 139), (c_SEMI, 234), (c_LT, 176), (c_EQ, 146), (c_GT, 72),
          (c_QMARK, 166), (c_LBRACK, 136), (c_RBRACK, 138), (c_CARET, 64), (c_a, 263),
          (c_s, 265), (c_LBRACE, 123), (c_PIPE, 65), (c_RBRACE, 124), (c_TILDE, 55)] la (
        if c_TAB \<le> la \<and> la \<le> c_CR \<or> la = c_SPACE then SKIP 22 else
        if la = c_DOLLAR \<or> c_A \<le> la \<and> la \<le> c_Z \<or> la = c_UNDERSCORE \<or> c_b \<le> la \<and> la \<le> c_z then ADVANCE 267 else
        END_STATE))),
     (23, \<lambda>eof la. NO_TOKEN (
        ADVANCE_MAP [
          (c_BANG, 216), (c_PERCENT, 58), (c_AMP, 59), (c_LPAREN, 140), (c_RPAREN, 141),
          (c_STAR, 60), (c_PLUS, 61), (c_COMMA, 137), (c_DASH, 62), (c_DOT, 226),
          (c_SLASH, 43), (c_COLON, 139), (c_SEMI, 234), (c_LT, 176), (c_EQ, 146), (c_GT, 72),
          (c_QMARK, 166), (c_LBRACK, 136), (c_RBRACK, 138), (c_CARET, 64), (c_PIPE, 65),
          (c_RBRACE, 124), (c_TILDE, 55)] la (
        if c_TAB \<le> la \<and> la \<le> c_CR \<or> la = c_SPACE then SKIP 23 else
        if la = c_DOLLAR \<or> c_A \<le> la \<and> la \<le> c_Z \<or> la = c_UNDERSCORE \<or> c_a \<le> la \<and> la \<le> c_z then ADVANCE 267 else
        END_STATE)))]"

definition ts_lex_cases_6 :: "(TSStateId \<times> lex_body) list" where
  "ts_lex_cases_6 = [
     (24, \<lambda>eof la. NO_TOKEN (
        ADVANCE_MAP [
          (c_BANG, 216), (c_AMP, 37), (c_LPAREN, 140), (c_RPAREN, 141), (c_COMMA, 137),
          (c_DOT, 224), (c_SLASH, 42), (c_COLON, 139), (c_LT, 173), (c_EQ, 146),
          (c_QMARK, 162), (c_RBRACK, 138), (c_a, 262), (c_PIPE, 89), (c_RBRACE, 124)] la (
        if c_TAB \<le> la \<and> la \<le> c_CR \<or> la = c_SPACE then SKIP 24 else
        if la = c_DOLLAR \<or> c_A \<le> la \<and> la \<le> c_Z \<or> la = c_UNDERSCORE \<or> c_b \<le> la \<and> la \<le> c_z then ADVANCE 267 else
        END_STATE))),
     (25, \<lambda>eof la. NO_TOKEN (
        ADVANCE_MAP [
          (c_BANG, 56), (c_DQUOTE, 112), (c_POUND, 104), (c_SQUOTE, 114), (c_LPAREN, 140),
          (c_RPAREN, 141), (c_COMMA, 137), (c_DASH, 213), (c_DOT, 51), (c_SLASH, 42),
          (c_0, 106), (c_COLON, 139), (c_LT, 177), (c_EQ, 56), (c_GT, 179), (c_AT, 236),
          (c_LBRACK, 136), (c_RBRACK, 138), (c_r, 253), (c_LBRACE, 123), (c_RBRACE, 124)] la (
        if c_TAB \<le> la \<and> la \<le> c_CR \<or> la = c_SPACE then SKIP 25 else
        if c_1 \<le> la \<and> la \<le> c_9 then ADVANCE 107 else
        if la = c_DOLLAR \<or> c_A \<le> la \<and> la \<le> c_Z \<or> la = c_UNDERSCORE \<or> c_a \<le> la \<and> la \<le> c_z then ADVANCE 267 else
        END_STATE))),
     (26, \<lambda>eof la. NO_TOKEN (
        ADVANCE_MAP [
          (c_BANG, 56), (c_PERCENT, 207), (c_AMP, 188), (c_LPAREN, 140), (c_RPAREN, 141),
          (c_STAR, 203), (c_COMMA, 137), (c_DOT, 224), (c_SLASH, 205), (c_COLON, 139),
          (c_LT, 175), (c_EQ, 57), (c_GT, 181), (c_QMARK, 171), (c_RBRACK, 138),
          (c_CARET, 186), (c_a, 262), (c_PIPE, 185), (c_RBRACE, 124), (c_TILDE, 53),
          (c_PLUS, 196), (c_DASH, 196)] la (
        if c_TAB \<le> la \<and> la \<le> c_CR \<or> la = c_SPACE then SKIP 26 else
        if la = c_DOLLAR \<or> c_A \<le> la \<and> la \<le> c_Z \<or> la = c_UNDERSCORE \<or> c_b \<le> la \<and> la \<le> c_z then ADVANCE 267 else
        END_STATE))),
     (27, \<lambda>eof la. NO_TOKEN (
        ADVANCE_MAP [
          (c_BANG, 56), (c_PERCENT, 207), (c_AMP, 188), (c_LPAREN, 140), (c_RPAREN, 141),
          (c_STAR, 203), (c_COMMA, 137), (c_DOT, 226), (c_SLASH, 205), (c_COLON, 139),
          (c_SEMI, 234), (c_LT, 175), (c_EQ, 57), (c_GT, 181), (c_QMARK, 170),
          (c_LBRACK, 136), (c_RBRACK, 138), (c_CARET, 186), (c_a, 262), (c_PIPE, 185),
          (c_RBRACE, 124), (c_TILDE, 53), (c_PLUS, 196), (c_DASH, 196)] la (
        if c_TAB \<le> la \<and> la \<le> c_CR \<or> la = c_SPACE then SKIP 27 else
        if la = c_DOLLAR \<or> c_A \<le> la \<and> la \<le> c_Z \<or> la = c_UNDERSCORE \<or> c_b \<le> la \<and> la \<le> c_z then ADVANCE 267 else
        END_STATE)))]"

definition ts_lex_cases_7 :: "(TSStateId \<times> lex_body) list" where
  "ts_lex_cases_7 = [
     (28, \<lambda>eof la. NO_TOKEN (
        ADVANCE_MAP [
          (c_BANG, 56), (c_PERCENT, 207), (c_AMP, 188), (c_LPAREN, 140), (c_STAR, 203),
          (c_COMMA, 137), (c_DOT, 226), (c_SLASH, 205), (c_SEMI, 234), (c_LT, 175),
          (c_EQ, 57), (c_GT, 181), (c_QMARK, 170), (c_CARET, 186), (c_a, 261), (c_s, 265),
          (c_LBRACE, 123), (c_PIPE, 185), (c_TILDE, 53), (c_PLUS, 196), (c_DASH, 196)] la (
        if c_TAB \<le> la \<and> la \<le> c_CR \<or> la = c_SPACE then SKIP 28 else
        if la = c_DOLLAR \<or> c_A \<le> la \<and> la \<le> c_Z \<or> la = c_UNDERSCORE \<or> c_b \<le> la \<and> la \<le> c_z then ADVANCE 267 else
        END_STATE))),
     (29, \<lambda>eof la. NO_TOKEN (
        if la = c_DQUOTE then ADVANCE 112 else
        if la = c_DOLLAR then ADVANCE 118 else
        if la = c_SQUOTE then ADVANCE 113 else
        if la = c_SLASH then ADVANCE 130 else
        if la = c_BSLASH then ADVANCE 132 else
        if c_TAB \<le> la \<and> la \<le> c_CR \<or> la = c_SPACE then ADVANCE 126 else
        if la \<noteq> 0 \<and> (la < c_A \<or> c_Z < la) \<and> la \<noteq> c_UNDERSCORE \<and> (la < c_a \<or> c_LBRACE < la) then ADVANCE 125 else
        END_STATE)),
     (30, \<lambda>eof la. NO_TOKEN (
        if la = c_DQUOTE then ADVANCE 115 else
        END_STATE)),
     (31, \<lambda>eof la. NO_TOKEN (
        if la = c_DQUOTE then ADVANCE 121 else
        END_STATE)),
     (32, \<lambda>eof la. NO_TOKEN (
        if la = c_DQUOTE then ADVANCE 111 else
        if la = c_DOLLAR then ADVANCE 118 else
        if la = c_SQUOTE then ADVANCE 114 else
        if la = c_SLASH then ADVANCE 130 else
        if la = c_BSLASH then ADVANCE 132 else
        if c_TAB \<le> la \<and> la \<le> c_CR \<or> la = c_SPACE then ADVANCE 127 else
        if la \<noteq> 0 \<and> (la < c_A \<or> c_Z < la) \<and> la \<noteq> c_UNDERSCORE \<and> (la < c_a \<or> c_LBRACE < la) then ADVANCE 125 else
        END_STATE)),
     (33, \<lambda>eof la. NO_TOKEN (
        if la = c_DQUOTE then ADVANCE 111 else
        if la = c_DOLLAR then ADVANCE 118 else
        if la = c_SQUOTE then ADVANCE 113 else
        if la = c_SLASH then ADVANCE 42 else
        if la = c_BSLASH then ADVANCE 85 else
        if c_TAB \<le> la \<and> la \<le> c_CR \<or> la = c_SPACE then SKIP 34 else
        END_STATE)),
     (34, \<lambda>eof la. NO_TOKEN (
        if la = c_DQUOTE then ADVANCE 111 else
        if la = c_DOLLAR then ADVANCE 118 else
        if la = c_SQUOTE then ADVANCE 113 else
        if la = c_SLASH then ADVANCE 42 else
        if c_TAB \<le> la \<and> la \<le> c_CR \<or> la = c_SPACE then SKIP 34 else
        END_STATE)),
     (35, \<lambda>eof la. NO_TOKEN (
        if la = c_DQUOTE then ADVANCE 111 else
        if la = c_DOLLAR then ADVANCE 118 else
        if la = c_SQUOTE then ADVANCE 113 else
        if la = c_SLASH then ADVANCE 130 else
        if la = c_BSLASH then ADVANCE 132 else
        if c_TAB \<le> la \<and> la \<le> c_CR \<or> la = c_SPACE then ADVANCE 128 else
        if la \<noteq> 0 \<and> (la < c_A \<or> c_Z < la) \<and> la \<noteq> c_UNDERSCORE \<and> (la < c_a \<or> c_LBRACE < la) then ADVANCE 125 else
        END_STATE)),
     (36, \<lambda>eof la. NO_TOKEN (
        if la = c_DOLLAR then ADVANCE 268 else
        END_STATE)),
     (37, \<lambda>eof la. NO_TOKEN (
        if la = c_AMP then ADVANCE 250 else
        END_STATE)),
     (38, \<lambda>eof la. NO_TOKEN (
        ADVANCE_MAP [
          (c_AMP, 37), (c_LPAREN, 140), (c_RPAREN, 141), (c_COMMA, 137), (c_DOT, 224),
          (c_SLASH, 42), (c_COLON, 139), (c_SEMI, 234), (c_LT, 173), (c_EQ, 146),
          (c_GT, 178), (c_QMARK, 162), (c_AT, 236), (c_LBRACK, 136), (c_RBRACK, 138),
          (c_LBRACE, 123), (c_PIPE, 89), (c_RBRACE, 124)] la (
        if c_TAB \<le> la \<and> la \<le> c_CR \<or> la = c_SPACE then SKIP 38 else
        if la = c_DOLLAR \<or> c_A \<le> la \<and> la \<le> c_Z \<or> la = c_UNDERSCORE \<or> c_a \<le> la \<and> la \<le> c_z then ADVANCE 267 else
        END_STATE))),
     (39, \<lambda>eof la. NO_TOKEN (
        if la = c_SQUOTE then ADVANCE 116 else
        END_STATE)),
     (40, \<lambda>eof la. NO_TOKEN (
        if la = c_SQUOTE then ADVANCE 122 else
        END_STATE))]"

definition ts_lex_cases_8 :: "(TSStateId \<times> lex_body) list" where
  "ts_lex_cases_8 = [
     (41, \<lambda>eof la. NO_TOKEN (
        ADVANCE_MAP [
          (c_RPAREN, 141), (c_COMMA, 137), (c_SLASH, 42), (c_COLON, 139), (c_SEMI, 234),
          (c_EQ, 146), (c_QMARK, 162), (c_RBRACK, 138), (c_a, 263), (c_s, 265),
          (c_LBRACE, 123), (c_RBRACE, 124)] la (
        if c_TAB \<le> la \<and> la \<le> c_CR \<or> la = c_SPACE then SKIP 41 else
        if la = c_DOLLAR \<or> c_A \<le> la \<and> la \<le> c_Z \<or> la = c_UNDERSCORE \<or> c_b \<le> la \<and> la \<le> c_z then ADVANCE 267 else
        END_STATE))),
     (42, \<lambda>eof la. NO_TOKEN (
        if la = c_STAR then ADVANCE 278 else
        if la = c_SLASH then ADVANCE 270 else
        END_STATE)),
     (43, \<lambda>eof la. NO_TOKEN (
        if la = c_STAR then ADVANCE 278 else
        if la = c_SLASH then ADVANCE 270 else
        if la = c_EQ then ADVANCE 150 else
        END_STATE)),
     (44, \<lambda>eof la. NO_TOKEN (
        if la = c_STAR then ADVANCE 243 else
        END_STATE)),
     (45, \<lambda>eof la. NO_TOKEN (
        if la = c_STAR then ADVANCE 283 else
        if la = c_SLASH then ADVANCE 47 else
        if c_TAB \<le> la \<and> la \<le> c_CR \<or> la = c_SPACE then ADVANCE 45 else
        if la \<noteq> 0 then ADVANCE 46 else
        END_STATE)),
     (46, \<lambda>eof la. NO_TOKEN (
        if la = c_STAR then ADVANCE 283 else
        if la \<noteq> 0 then ADVANCE 46 else
        END_STATE)),
     (47, \<lambda>eof la. NO_TOKEN (
        if la = c_STAR then ADVANCE 279 else
        if la = c_SLASH then ADVANCE 269 else
        if la \<noteq> 0 then ADVANCE 46 else
        END_STATE)),
     (48, \<lambda>eof la. NO_TOKEN (
        if la = c_PLUS then ADVANCE 211 else
        END_STATE)),
     (49, \<lambda>eof la. NO_TOKEN (
        if la = c_DOT then ADVANCE 212 else
        END_STATE)),
     (50, \<lambda>eof la. NO_TOKEN (
        if la = c_DOT then ADVANCE 233 else
        END_STATE)),
     (51, \<lambda>eof la. NO_TOKEN (
        if la = c_DOT then ADVANCE 49 else
        if c_0 \<le> la \<and> la \<le> c_9 then ADVANCE 109 else
        END_STATE)),
     (52, \<lambda>eof la. NO_TOKEN (
        if la = c_SLASH then ADVANCE 210 else
        END_STATE)),
     (53, \<lambda>eof la. NO_TOKEN (
        if la = c_SLASH then ADVANCE 209 else
        END_STATE)),
     (54, \<lambda>eof la. NO_TOKEN (
        if la = c_SLASH then ADVANCE 130 else
        if la = c_BSLASH then ADVANCE 129 else
        if la = c_LBRACE then ADVANCE 123 else
        if c_TAB \<le> la \<and> la \<le> c_CR \<or> la = c_SPACE then ADVANCE 131 else
        if c_A \<le> la \<and> la \<le> c_Z \<or> la = c_UNDERSCORE \<or> c_a \<le> la \<and> la \<le> c_z then ADVANCE 268 else
        if la \<noteq> 0 then ADVANCE 125 else
        END_STATE)),
     (55, \<lambda>eof la. NO_TOKEN (
        if la = c_SLASH then ADVANCE 69 else
        END_STATE)),
     (56, \<lambda>eof la. NO_TOKEN (
        if la = c_EQ then ADVANCE 172 else
        END_STATE)),
     (57, \<lambda>eof la. NO_TOKEN (
        if la = c_EQ then ADVANCE 172 else
        if la = c_GT then ADVANCE 235 else
        END_STATE)),
     (58, \<lambda>eof la. NO_TOKEN (
        if la = c_EQ then ADVANCE 151 else
        END_STATE)),
     (59, \<lambda>eof la. NO_TOKEN (
        if la = c_EQ then ADVANCE 156 else
        END_STATE)),
     (60, \<lambda>eof la. NO_TOKEN (
        if la = c_EQ then ADVANCE 149 else
        END_STATE)),
     (61, \<lambda>eof la. NO_TOKEN (
        if la = c_EQ then ADVANCE 147 else
        END_STATE)),
     (62, \<lambda>eof la. NO_TOKEN (
        if la = c_EQ then ADVANCE 148 else
        END_STATE)),
     (63, \<lambda>eof la. NO_TOKEN (
        if la = c_EQ then ADVANCE 237 else
        if la = c_GT then ADVANCE 235 else
        END_STATE)),
     (64, \<lambda>eof la. NO_TOKEN (
        if la = c_EQ then ADVANCE 157 else
        END_STATE)),
     (65, \<lambda>eof la. NO_TOKEN (
        if la = c_EQ then ADVANCE 158 else
        END_STATE)),
     (66, \<lambda>eof la. NO_TOKEN (
        if la = c_EQ then ADVANCE 153 else
        END_STATE)),
     (67, \<lambda>eof la. NO_TOKEN (
        if la = c_EQ then ADVANCE 154 else
        if la = c_GT then ADVANCE 70 else
        END_STATE)),
     (68, \<lambda>eof la. NO_TOKEN (
        if la = c_EQ then ADVANCE 159 else
        END_STATE)),
     (69, \<lambda>eof la. NO_TOKEN (
        if la = c_EQ then ADVANCE 152 else
        END_STATE)),
     (70, \<lambda>eof la. NO_TOKEN (
        if la = c_EQ then ADVANCE 155 else
        END_STATE)),
     (71, \<lambda>eof la. NO_TOKEN (
        if la = c_GT then ADVANCE 235 else
        END_STATE)),
     (72, \<lambda>eof la. NO_TOKEN (
        if la = c_GT then ADVANCE 67 else
        END_STATE)),
     (73, \<lambda>eof la. NO_TOKEN (
        if la = c_RBRACK then ADVANCE 238 else
        END_STATE)),
     (74, \<lambda>eof la. NO_TOKEN (
        if la = c_UNDERSCORE then ADVANCE 74 else
        if c_0 \<le> la \<and> la \<le> c_9 then ADVANCE 107 else
        END_STATE)),
     (75, \<lambda>eof la. NO_TOKEN (
        if la = c_UNDERSCORE then ADVANCE 75 else
        if c_0 \<le> la \<and> la \<le> c_9 then ADVANCE 109 else
        END_STATE))]"

definition ts_lex_cases_9 :: "(TSStateId \<times> lex_body) list" where
  "ts_lex_cases_9 = [
     (76, \<lambda>eof la. NO_TOKEN (
        if la = c_UNDERSCORE then ADVANCE 76 else
        if c_0 \<le> la \<and> la \<le> c_9 then ADVANCE 110 else
        END_STATE)),
     (77, \<lambda>eof la. NO_TOKEN (
        if la = c_c then ADVANCE 44 else
        END_STATE)),
     (78, \<lambda>eof la. NO_TOKEN (
        if la = c_c then ADVANCE 240 else
        END_STATE)),
     (79, \<lambda>eof la. NO_TOKEN (
        if la = c_f then ADVANCE 249 else
        END_STATE)),
     (80, \<lambda>eof la. NO_TOKEN (
        if la = c_n then ADVANCE 77 else
        END_STATE)),
     (81, \<lambda>eof la. NO_TOKEN (
        if la = c_n then ADVANCE 78 else
        END_STATE)),
     (82, \<lambda>eof la. NO_TOKEN (
        if la = c_o then ADVANCE 79 else
        END_STATE)),
     (83, \<lambda>eof la. NO_TOKEN (
        if la = c_s then ADVANCE 221 else
        END_STATE)),
     (84, \<lambda>eof la. NO_TOKEN (
        if la = c_s then ADVANCE 87 else
        END_STATE)),
     (85, \<lambda>eof la. NO_TOKEN (
        if la = c_u then ADVANCE 88 else
        if la = c_x then ADVANCE 98 else
        if c_0 \<le> la \<and> la \<le> c_7 then ADVANCE 135 else
        if la \<noteq> 0 then ADVANCE 133 else
        END_STATE)),
     (86, \<lambda>eof la. NO_TOKEN (
        if la = c_y then ADVANCE 80 else
        END_STATE)),
     (87, \<lambda>eof la. NO_TOKEN (
        if la = c_y then ADVANCE 81 else
        END_STATE)),
     (88, \<lambda>eof la. NO_TOKEN (
        if la = c_LBRACE then ADVANCE 96 else
        if c_0 \<le> la \<and> la \<le> c_9 \<or> c_A \<le> la \<and> la \<le> c_F \<or> c_a \<le> la \<and> la \<le> c_f then ADVANCE 97 else
        END_STATE)),
     (89, \<lambda>eof la. NO_TOKEN (
        if la = c_PIPE then ADVANCE 251 else
        END_STATE)),
     (90, \<lambda>eof la. NO_TOKEN (
        if la = c_RBRACE then ADVANCE 133 else
        if c_0 \<le> la \<and> la \<le> c_9 \<or> c_A \<le> la \<and> la \<le> c_F \<or> c_a \<le> la \<and> la \<le> c_f then ADVANCE 90 else
        END_STATE)),
     (91, \<lambda>eof la. NO_TOKEN (
        if la = c_PLUS \<or> la = c_DASH then ADVANCE 93 else
        if c_0 \<le> la \<and> la \<le> c_9 then ADVANCE 110 else
        END_STATE)),
     (92, \<lambda>eof la. NO_TOKEN (
        if c_0 \<le> la \<and> la \<le> c_9 then ADVANCE 109 else
        END_STATE)),
     (93, \<lambda>eof la. NO_TOKEN (
        if c_0 \<le> la \<and> la \<le> c_9 then ADVANCE 110 else
        END_STATE)),
     (94, \<lambda>eof la. NO_TOKEN (
        if c_0 \<le> la \<and> la \<le> c_9 \<or> c_A \<le> la \<and> la \<le> c_F \<or> c_a \<le> la \<and> la \<le> c_f then ADVANCE 133 else
        END_STATE)),
     (95, \<lambda>eof la. NO_TOKEN (
        if c_0 \<le> la \<and> la \<le> c_9 \<or> c_A \<le> la \<and> la \<le> c_F \<or> c_a \<le> la \<and> la \<le> c_f then ADVANCE 108 else
        END_STATE)),
     (96, \<lambda>eof la. NO_TOKEN (
        if c_0 \<le> la \<and> la \<le> c_9 \<or> c_A \<le> la \<and> la \<le> c_F \<or> c_a \<le> la \<and> la \<le> c_f then ADVANCE 90 else
        END_STATE)),
     (97, \<lambda>eof la. NO_TOKEN (
        if c_0 \<le> la \<and> la \<le> c_9 \<or> c_A \<le> la \<and> la \<le> c_F \<or> c_a \<le> la \<and> la \<le> c_f then ADVANCE 98 else
        END_STATE)),
     (98, \<lambda>eof la. NO_TOKEN (
        if c_0 \<le> la \<and> la \<le> c_9 \<or> c_A \<le> la \<and> la \<le> c_F \<or> c_a \<le> la \<and> la \<le> c_f then ADVANCE 94 else
        END_STATE)),
     (99, \<lambda>eof la. NO_TOKEN (
        if eof then ADVANCE 103 else
        ADVANCE_MAP [
          (c_BANG, 217), (c_DQUOTE, 112), (c_POUND, 105), (c_DOLLAR, 119), (c_PERCENT, 208),
          (c_AMP, 189), (c_SQUOTE, 114), (c_LPAREN, 140), (c_RPAREN, 141), (c_STAR, 204),
          (c_PLUS, 198), (c_COMMA, 137), (c_DASH, 215), (c_DOT, 225), (c_SLASH, 206),
          (c_0, 106), (c_COLON, 139), (c_SEMI, 234), (c_LT, 174), (c_EQ, 145), (c_GT, 180),
          (c_QMARK, 164), (c_AT, 236), (c_LBRACK, 136), (c_RBRACK, 138), (c_CARET, 187),
          (c_a, 261), (c_p, 255), (c_r, 253), (c_s, 265), (c_LBRACE, 123), (c_PIPE, 184),
          (c_RBRACE, 124), (c_TILDE, 219)] la (
        if c_TAB \<le> la \<and> la \<le> c_CR \<or> la = c_SPACE then SKIP 99 else
        if c_1 \<le> la \<and> la \<le> c_9 then ADVANCE 107 else
        if c_A \<le> la \<and> la \<le> c_Z \<or> la = c_UNDERSCORE \<or> c_b \<le> la \<and> la \<le> c_z then ADVANCE 267 else
        END_STATE)))]"

definition ts_lex_cases_10 :: "(TSStateId \<times> lex_body) list" where
  "ts_lex_cases_10 = [
     (100, \<lambda>eof la. NO_TOKEN (
        if eof then ADVANCE 103 else
        ADVANCE_MAP [
          (c_BANG, 216), (c_DQUOTE, 112), (c_POUND, 16), (c_SQUOTE, 114), (c_LPAREN, 140),
          (c_RPAREN, 141), (c_COMMA, 137), (c_DOT, 224), (c_SLASH, 42), (c_COLON, 139),
          (c_SEMI, 234), (c_LT, 173), (c_EQ, 142), (c_GT, 178), (c_QMARK, 167), (c_AT, 236),
          (c_LBRACK, 136), (c_RBRACK, 138), (c_p, 255), (c_r, 253), (c_RBRACE, 124)] la (
        if c_TAB \<le> la \<and> la \<le> c_CR \<or> la = c_SPACE then SKIP 100 else
        if la = c_DOLLAR \<or> c_A \<le> la \<and> la \<le> c_Z \<or> la = c_UNDERSCORE \<or> c_a \<le> la \<and> la \<le> c_z then ADVANCE 267 else
        END_STATE))),
     (101, \<lambda>eof la. NO_TOKEN (
        if eof then ADVANCE 103 else
        ADVANCE_MAP [
          (c_BANG, 216), (c_DQUOTE, 112), (c_POUND, 104), (c_AMP, 37), (c_SQUOTE, 114),
          (c_LPAREN, 140), (c_RPAREN, 141), (c_STAR, 203), (c_PLUS, 48), (c_COMMA, 137),
          (c_DASH, 214), (c_DOT, 51), (c_SLASH, 42), (c_0, 106), (c_COLON, 139),
          (c_SEMI, 234), (c_LT, 173), (c_EQ, 146), (c_GT, 178), (c_QMARK, 162), (c_AT, 236),
          (c_LBRACK, 136), (c_RBRACK, 138), (c_r, 253), (c_LBRACE, 123), (c_PIPE, 89),
          (c_RBRACE, 124), (c_TILDE, 218)] la (
        if c_TAB \<le> la \<and> la \<le> c_CR \<or> la = c_SPACE then SKIP 101 else
        if c_1 \<le> la \<and> la \<le> c_9 then ADVANCE 107 else
        if la = c_DOLLAR \<or> c_A \<le> la \<and> la \<le> c_Z \<or> la = c_UNDERSCORE \<or> c_a \<le> la \<and> la \<le> c_z then ADVANCE 267 else
        END_STATE))),
     (102, \<lambda>eof la. NO_TOKEN (
        if eof then ADVANCE 103 else
        ADVANCE_MAP [
          (c_BANG, 216), (c_DQUOTE, 112), (c_POUND, 104), (c_AMP, 37), (c_SQUOTE, 114),
          (c_LPAREN, 140), (c_RPAREN, 141), (c_PLUS, 48), (c_COMMA, 137), (c_DASH, 214),
          (c_DOT, 228), (c_SLASH, 42), (c_0, 106), (c_COLON, 139), (c_SEMI, 234),
          (c_LT, 173), (c_EQ, 63), (c_GT, 178), (c_QMARK, 167), (c_AT, 236), (c_LBRACK, 136),
          (c_RBRACK, 138), (c_r, 253), (c_LBRACE, 123), (c_PIPE, 89), (c_RBRACE, 124),
          (c_TILDE, 218)] la (
        if c_TAB \<le> la \<and> la \<le> c_CR \<or> la = c_SPACE then SKIP 102 else
        if c_1 \<le> la \<and> la \<le> c_9 then ADVANCE 107 else
        if la = c_DOLLAR \<or> c_A \<le> la \<and> la \<le> c_Z \<or> la = c_UNDERSCORE \<or> c_a \<le> la \<and> la \<le> c_z then ADVANCE 267 else
        END_STATE))),
     (103, \<lambda>eof la. ACCEPT_TOKEN ts_builtin_sym_end (
        END_STATE)),
     (104, \<lambda>eof la. ACCEPT_TOKEN anon_sym_POUND (
        END_STATE)),
     (105, \<lambda>eof la. ACCEPT_TOKEN anon_sym_POUND (
        if la = c_BANG then ADVANCE 244 else
        END_STATE)),
     (106, \<lambda>eof la. ACCEPT_TOKEN sym_decimal_integer_literal (
        if la = c_DOT then ADVANCE 92 else
        if la = c_UNDERSCORE then ADVANCE 74 else
        if la = c_E \<or> la = c_e then ADVANCE 91 else
        if la = c_X \<or> la = c_x then ADVANCE 95 else
        if c_0 \<le> la \<and> la \<le> c_9 then ADVANCE 107 else
        END_STATE)),
     (107, \<lambda>eof la. ACCEPT_TOKEN sym_decimal_integer_literal (
        if la = c_DOT then ADVANCE 92 else
        if la = c_UNDERSCORE then ADVANCE 74 else
        if la = c_E \<or> la = c_e then ADVANCE 91 else
        if c_0 \<le> la \<and> la \<le> c_9 then ADVANCE 107 else
        END_STATE)),
     (108, \<lambda>eof la. ACCEPT_TOKEN sym_hex_integer_literal (
        if la = c_UNDERSCORE then ADVANCE 95 else
        if c_0 \<le> la \<and> la \<le> c_9 \<or> c_A \<le> la \<and> la \<le> c_F \<or> c_a \<le> la \<and> la \<le> c_f then ADVANCE 108 else
        END_STATE))]"

definition ts_lex_cases_11 :: "(TSStateId \<times> lex_body) list" where
  "ts_lex_cases_11 = [
     (109, \<lambda>eof la. ACCEPT_TOKEN sym_decimal_floating_point_literal (
        if la = c_UNDERSCORE then ADVANCE 75 else
        if la = c_E \<or> la = c_e then ADVANCE 91 else
        if c_0 \<le> la \<and> la \<le> c_9 then ADVANCE 109 else
        END_STATE)),
     (110, \<lambda>eof la. ACCEPT_TOKEN sym_decimal_floating_point_literal (
        if la = c_UNDERSCORE then ADVANCE 76 else
        if c_0 \<le> la \<and> la \<le> c_9 then ADVANCE 110 else
        END_STATE)),
     (111, \<lambda>eof la. ACCEPT_TOKEN anon_sym_DQUOTE (
        END_STATE)),
     (112, \<lambda>eof la. ACCEPT_TOKEN anon_sym_DQUOTE (
        if la = c_DQUOTE then ADVANCE 30 else
        END_STATE)),
     (113, \<lambda>eof la. ACCEPT_TOKEN anon_sym_SQUOTE (
        END_STATE)),
     (114, \<lambda>eof la. ACCEPT_TOKEN anon_sym_SQUOTE (
        if la = c_SQUOTE then ADVANCE 39 else
        END_STATE)),
     (115, \<lambda>eof la. ACCEPT_TOKEN anon_sym_DQUOTE_DQUOTE_DQUOTE (
        END_STATE)),
     (116, \<lambda>eof la. ACCEPT_TOKEN anon_sym_SQUOTE_SQUOTE_SQUOTE (
        END_STATE)),
     (117, \<lambda>eof la. ACCEPT_TOKEN anon_sym_r_DQUOTE (
        if la = c_DQUOTE then ADVANCE 31 else
        END_STATE)),
     (118, \<lambda>eof la. ACCEPT_TOKEN anon_sym_DOLLAR (
        END_STATE)),
     (119, \<lambda>eof la. ACCEPT_TOKEN anon_sym_DOLLAR (
        if la = c_DOLLAR \<or> c_0 \<le> la \<and> la \<le> c_9 \<or> c_A \<le> la \<and> la \<le> c_Z \<or> la = c_UNDERSCORE \<or> c_a \<le> la \<and> la \<le> c_z then ADVANCE 267 else
        END_STATE)),
     (120, \<lambda>eof la. ACCEPT_TOKEN anon_sym_r_SQUOTE (
        if la = c_SQUOTE then ADVANCE 40 else
        END_STATE)),
     (121, \<lambda>eof la. ACCEPT_TOKEN anon_sym_r_DQUOTE_DQUOTE_DQUOTE (
        END_STATE)),
     (122, \<lambda>eof la. ACCEPT_TOKEN anon_sym_r_SQUOTE_SQUOTE_SQUOTE (
        END_STATE)),
     (123, \<lambda>eof la. ACCEPT_TOKEN anon_sym_LBRACE (
        END_STATE)),
     (124, \<lambda>eof la. ACCEPT_TOKEN anon_sym_RBRACE (
        END_STATE)),
     (125, \<lambda>eof la. ACCEPT_TOKEN aux_sym__sub_string_test_token1 (
        END_STATE)),
     (126, \<lambda>eof la. ACCEPT_TOKEN aux_sym__sub_string_test_token1 (
        if la = c_DQUOTE then ADVANCE 112 else
        if la = c_DOLLAR then ADVANCE 118 else
        if la = c_SQUOTE then ADVANCE 113 else
        if la = c_SLASH then ADVANCE 130 else
        if c_TAB \<le> la \<and> la \<le> c_CR \<or> la = c_SPACE then ADVANCE 126 else
        if la \<noteq> 0 \<and> (la < c_A \<or> c_Z < la) \<and> la \<noteq> c_UNDERSCORE \<and> (la < c_a \<or> c_LBRACE < la) then ADVANCE 125 else
        END_STATE)),
     (127, \<lambda>eof la. ACCEPT_TOKEN aux_sym__sub_string_test_token1 (
        if la = c_DQUOTE then ADVANCE 111 else
        if la = c_DOLLAR then ADVANCE 118 else
        if la = c_SQUOTE then ADVANCE 114 else
        if la = c_SLASH then ADVANCE 130 else
        if c_TAB \<le> la \<and> la \<le> c_CR \<or> la = c_SPACE then ADVANCE 127 else
        if la \<noteq> 0 \<and> (la < c_A \<or> c_Z < la) \<and> la \<noteq> c_UNDERSCORE \<and> (la < c_a \<or> c_LBRACE < la) then ADVANCE 125 else
        END_STATE)),
     (128, \<lambda>eof la. ACCEPT_TOKEN aux_sym__sub_string_test_token1 (
        if la = c_DQUOTE then ADVANCE 111 else
        if la = c_DOLLAR then ADVANCE 118 else
        if la = c_SQUOTE then ADVANCE 113 else
        if la = c_SLASH then ADVANCE 130 else
        if c_TAB \<le> la \<and> la \<le> c_CR \<or> la = c_SPACE then ADVANCE 128 else
        if la \<noteq> 0 \<and> (la < c_A \<or> c_Z < la) \<and> la \<noteq> c_UNDERSCORE \<and> (la < c_a \<or> c_LBRACE < la) then ADVANCE 125 else
        END_STATE)),
     (129, \<lambda>eof la. ACCEPT_TOKEN aux_sym__sub_string_test_token1 (
        if la = c_DOLLAR then ADVANCE 268 else
        END_STATE)),
     (130, \<lambda>eof la. ACCEPT_TOKEN aux_sym__sub_string_test_token1 (
        if la = c_STAR then ADVANCE 278 else
        if la = c_SLASH then ADVANCE 270 else
        END_STATE)),
     (131, \<lambda>eof la. ACCEPT_TOKEN aux_sym__sub_string_test_token1 (
        if la = c_SLASH then ADVANCE 130 else
        if la = c_BSLASH then ADVANCE 129 else
        if c_TAB \<le> la \<and> la \<le> c_CR \<or> la = c_SPACE then ADVANCE 131 else
        if la \<noteq> 0 \<and> (la < c_A \<or> c_Z < la) \<and> la \<noteq> c_UNDERSCORE \<and> (la < c_a \<or> c_LBRACE < la) then ADVANCE 125 else
        END_STATE)),
     (132, \<lambda>eof la. ACCEPT_TOKEN aux_sym__sub_string_test_token1 (
        if la = c_u then ADVANCE 88 else
        if la = c_x then ADVANCE 98 else
        if c_0 \<le> la \<and> la \<le> c_7 then ADVANCE 135 else
        if la \<noteq> 0 then ADVANCE 133 else
        END_STATE)),
     (133, \<lambda>eof la. ACCEPT_TOKEN sym__unused_escape_sequence (
        END_STATE)),
     (134, \<lambda>eof la. ACCEPT_TOKEN sym__unused_escape_sequence (
        if c_0 \<le> la \<and> la \<le> c_7 then ADVANCE 133 else
        END_STATE)),
     (135, \<lambda>eof la. ACCEPT_TOKEN sym__unused_escape_sequence (
        if c_0 \<le> la \<and> la \<le> c_7 then ADVANCE 134 else
        END_STATE)),
     (136, \<lambda>eof la. ACCEPT_TOKEN anon_sym_LBRACK (
        END_STATE)),
     (137, \<lambda>eof la. ACCEPT_TOKEN anon_sym_COMMA (
        END_STATE))]"

definition ts_lex_cases_12 :: "(TSStateId \<times> lex_body) list" where
  "ts_lex_cases_12 = [
     (138, \<lambda>eof la. ACCEPT_TOKEN anon_sym_RBRACK (
        END_STATE)),
     (139, \<lambda>eof la. ACCEPT_TOKEN anon_sym_COLON (
        END_STATE)),
     (140, \<lambda>eof la. ACCEPT_TOKEN anon_sym_LPAREN (
        END_STATE)),
     (141, \<lambda>eof la. ACCEPT_TOKEN anon_sym_RPAREN (
        END_STATE)),
     (142, \<lambda>eof la. ACCEPT_TOKEN anon_sym_EQ (
        END_STATE)),
     (143, \<lambda>eof la. ACCEPT_TOKEN anon_sym_EQ (
        if la = c_EQ then ADVANCE 172 else
        END_STATE)),
     (144, \<lambda>eof la. ACCEPT_TOKEN anon_sym_EQ (
        if la = c_EQ then ADVANCE 172 else
        if la = c_GT then ADVANCE 235 else
        END_STATE)),
     (145, \<lambda>eof la. ACCEPT_TOKEN anon_sym_EQ (
        if la = c_EQ then ADVANCE 237 else
        if la = c_GT then ADVANCE 235 else
        END_STATE)),
     (146, \<lambda>eof la. ACCEPT_TOKEN anon_sym_EQ (
        if la = c_GT then ADVANCE 235 else
        END_STATE)),
     (147, \<lambda>eof la. ACCEPT_TOKEN anon_sym_PLUS_EQ (
        END_STATE)),
     (148, \<lambda>eof la. ACCEPT_TOKEN anon_sym_DASH_EQ (
        END_STATE)),
     (149, \<lambda>eof la. ACCEPT_TOKEN anon_sym_STAR_EQ (
        END_STATE)),
     (150, \<lambda>eof la. ACCEPT_TOKEN anon_sym_SLASH_EQ (
        END_STATE)),
     (151, \<lambda>eof la. ACCEPT_TOKEN anon_sym_PERCENT_EQ (
        END_STATE)),
     (152, \<lambda>eof la. ACCEPT_TOKEN anon_sym_TILDE_SLASH_EQ (
        END_STATE)),
     (153, \<lambda>eof la. ACCEPT_TOKEN anon_sym_LT_LT_EQ (
        END_STATE)),
     (154, \<lambda>eof la. ACCEPT_TOKEN anon_sym_GT_GT_EQ (
        END_STATE)),
     (155, \<lambda>eof la. ACCEPT_TOKEN anon_sym_GT_GT_GT_EQ (
        END_STATE)),
     (156, \<lambda>eof la. ACCEPT_TOKEN anon_sym_AMP_EQ (
        END_STATE)),
     (157, \<lambda>eof la. ACCEPT_TOKEN anon_sym_CARET_EQ (
        END_STATE)),
     (158, \<lambda>eof la. ACCEPT_TOKEN anon_sym_PIPE_EQ (
        END_STATE)),
     (159, \<lambda>eof la. ACCEPT_TOKEN anon_sym_QMARK_QMARK_EQ (
        END_STATE)),
     (160, \<lambda>eof la. ACCEPT_TOKEN anon_sym_QMARK_QMARK (
        END_STATE)),
     (161, \<lambda>eof la. ACCEPT_TOKEN anon_sym_QMARK_QMARK (
        if la = c_EQ then ADVANCE 159 else
        END_STATE)),
     (162, \<lambda>eof la. ACCEPT_TOKEN anon_sym_QMARK (
        END_STATE)),
     (163, \<lambda>eof la. ACCEPT_TOKEN anon_sym_QMARK (
        if la = c_DOT then ADVANCE 230 else
        END_STATE)),
     (164, \<lambda>eof la. ACCEPT_TOKEN anon_sym_QMARK (
        if la = c_DOT then ADVANCE 230 else
        if la = c_QMARK then ADVANCE 161 else
        END_STATE)),
     (165, \<lambda>eof la. ACCEPT_TOKEN anon_sym_QMARK (
        if la = c_DOT then ADVANCE 230 else
        if la = c_QMARK then ADVANCE 160 else
        END_STATE)),
     (166, \<lambda>eof la. ACCEPT_TOKEN anon_sym_QMARK (
        if la = c_DOT then ADVANCE 230 else
        if la = c_QMARK then ADVANCE 68 else
        END_STATE)),
     (167, \<lambda>eof la. ACCEPT_TOKEN anon_sym_QMARK (
        if la = c_DOT then ADVANCE 229 else
        END_STATE)),
     (168, \<lambda>eof la. ACCEPT_TOKEN anon_sym_QMARK (
        if la = c_DOT then ADVANCE 229 else
        if la = c_QMARK then ADVANCE 161 else
        END_STATE)),
     (169, \<lambda>eof la. ACCEPT_TOKEN anon_sym_QMARK (
        if la = c_DOT then ADVANCE 229 else
        if la = c_QMARK then ADVANCE 160 else
        END_STATE)),
     (170, \<lambda>eof la. ACCEPT_TOKEN anon_sym_QMARK (
        if la = c_DOT then ADVANCE 50 else
        if la = c_QMARK then ADVANCE 160 else
        END_STATE)),
     (171, \<lambda>eof la. ACCEPT_TOKEN anon_sym_QMARK (
        if la = c_QMARK then ADVANCE 160 else
        END_STATE)),
     (172, \<lambda>eof la. ACCEPT_TOKEN sym_equality_operator (
        END_STATE)),
     (173, \<lambda>eof la. ACCEPT_TOKEN anon_sym_LT (
        END_STATE)),
     (174, \<lambda>eof la. ACCEPT_TOKEN anon_sym_LT (
        if la = c_LT then ADVANCE 191 else
        if la = c_EQ then ADVANCE 182 else
        END_STATE)),
     (175, \<lambda>eof la. ACCEPT_TOKEN anon_sym_LT (
        if la = c_LT then ADVANCE 190 else
        if la = c_EQ then ADVANCE 182 else
        END_STATE)),
     (176, \<lambda>eof la. ACCEPT_TOKEN anon_sym_LT (
        if la = c_LT then ADVANCE 66 else
        END_STATE)),
     (177, \<lambda>eof la. ACCEPT_TOKEN anon_sym_LT (
        if la = c_EQ then ADVANCE 182 else
        END_STATE))]"

definition ts_lex_cases_13 :: "(TSStateId \<times> lex_body) list" where
  "ts_lex_cases_13 = [
     (178, \<lambda>eof la. ACCEPT_TOKEN anon_sym_GT (
        END_STATE)),
     (179, \<lambda>eof la. ACCEPT_TOKEN anon_sym_GT (
        if la = c_EQ then ADVANCE 183 else
        END_STATE)),
     (180, \<lambda>eof la. ACCEPT_TOKEN anon_sym_GT (
        if la = c_EQ then ADVANCE 183 else
        if la = c_GT then ADVANCE 192 else
        END_STATE)),
     (181, \<lambda>eof la. ACCEPT_TOKEN anon_sym_GT (
        if la = c_EQ then ADVANCE 183 else
        if la = c_GT then ADVANCE 193 else
        END_STATE)),
     (182, \<lambda>eof la. ACCEPT_TOKEN anon_sym_LT_EQ (
        END_STATE)),
     (183, \<lambda>eof la. ACCEPT_TOKEN anon_sym_GT_EQ (
        END_STATE)),
     (184, \<lambda>eof la. ACCEPT_TOKEN anon_sym_PIPE (
        if la = c_EQ then ADVANCE 158 else
        if la = c_PIPE then ADVANCE 251 else
        END_STATE)),
     (185, \<lambda>eof la. ACCEPT_TOKEN anon_sym_PIPE (
        if la = c_PIPE then ADVANCE 251 else
        END_STATE)),
     (186, \<lambda>eof la. ACCEPT_TOKEN anon_sym_CARET (
        END_STATE)),
     (187, \<lambda>eof la. ACCEPT_TOKEN anon_sym_CARET (
        if la = c_EQ then ADVANCE 157 else
        END_STATE)),
     (188, \<lambda>eof la. ACCEPT_TOKEN anon_sym_AMP (
        if la = c_AMP then ADVANCE 250 else
        END_STATE)),
     (189, \<lambda>eof la. ACCEPT_TOKEN anon_sym_AMP (
        if la = c_AMP then ADVANCE 250 else
        if la = c_EQ then ADVANCE 156 else
        END_STATE)),
     (190, \<lambda>eof la. ACCEPT_TOKEN anon_sym_LT_LT (
        END_STATE)),
     (191, \<lambda>eof la. ACCEPT_TOKEN anon_sym_LT_LT (
        if la = c_EQ then ADVANCE 153 else
        END_STATE)),
     (192, \<lambda>eof la. ACCEPT_TOKEN anon_sym_GT_GT (
        if la = c_EQ then ADVANCE 154 else
        if la = c_GT then ADVANCE 195 else
        END_STATE)),
     (193, \<lambda>eof la. ACCEPT_TOKEN anon_sym_GT_GT (
        if la = c_GT then ADVANCE 194 else
        END_STATE)),
     (194, \<lambda>eof la. ACCEPT_TOKEN anon_sym_GT_GT_GT (
        END_STATE)),
     (195, \<lambda>eof la. ACCEPT_TOKEN anon_sym_GT_GT_GT (
        if la = c_EQ then ADVANCE 155 else
        END_STATE)),
     (196, \<lambda>eof la. ACCEPT_TOKEN sym__additive_operator (
        END_STATE)),
     (197, \<lambda>eof la. ACCEPT_TOKEN sym__additive_operator (
        if la = c_PLUS then ADVANCE 211 else
        END_STATE)),
     (198, \<lambda>eof la. ACCEPT_TOKEN sym__additive_operator (
        if la = c_PLUS then ADVANCE 211 else
        if la = c_EQ then ADVANCE 147 else
        END_STATE)),
     (199, \<lambda>eof la. ACCEPT_TOKEN sym__additive_operator (
        if la = c_DASH then ADVANCE 211 else
        END_STATE)),
     (200, \<lambda>eof la. ACCEPT_TOKEN sym__additive_operator (
        if la = c_DASH then ADVANCE 211 else
        if la = c_EQ then ADVANCE 148 else
        END_STATE)),
     (201, \<lambda>eof la. ACCEPT_TOKEN sym__additive_operator (
        if la = c_EQ then ADVANCE 147 else
        END_STATE)),
     (202, \<lambda>eof la. ACCEPT_TOKEN sym__additive_operator (
        if la = c_EQ then ADVANCE 148 else
        END_STATE)),
     (203, \<lambda>eof la. ACCEPT_TOKEN anon_sym_STAR (
        END_STATE)),
     (204, \<lambda>eof la. ACCEPT_TOKEN anon_sym_STAR (
        if la = c_EQ then ADVANCE 149 else
        END_STATE)),
     (205, \<lambda>eof la. ACCEPT_TOKEN anon_sym_SLASH (
        if la = c_STAR then ADVANCE 278 else
        if la = c_SLASH then ADVANCE 270 else
        END_STATE)),
     (206, \<lambda>eof la. ACCEPT_TOKEN anon_sym_SLASH (
        if la = c_STAR then ADVANCE 278 else
        if la = c_SLASH then ADVANCE 270 else
        if la = c_EQ then ADVANCE 150 else
        END_STATE)),
     (207, \<lambda>eof la. ACCEPT_TOKEN anon_sym_PERCENT (
        END_STATE)),
     (208, \<lambda>eof la. ACCEPT_TOKEN anon_sym_PERCENT (
        if la = c_EQ then ADVANCE 151 else
        END_STATE)),
     (209, \<lambda>eof la. ACCEPT_TOKEN anon_sym_TILDE_SLASH (
        END_STATE)),
     (210, \<lambda>eof la. ACCEPT_TOKEN anon_sym_TILDE_SLASH (
        if la = c_EQ then ADVANCE 152 else
        END_STATE)),
     (211, \<lambda>eof la. ACCEPT_TOKEN sym_increment_operator (
        END_STATE)),
     (212, \<lambda>eof la. ACCEPT_TOKEN anon_sym_DOT_DOT_DOT (
        END_STATE)),
     (213, \<lambda>eof la. ACCEPT_TOKEN sym_minus_operator (
        END_STATE)),
     (214, \<lambda>eof la. ACCEPT_TOKEN sym_minus_operator (
        if la = c_DASH then ADVANCE 211 else
        END_STATE)),
     (215, \<lambda>eof la. ACCEPT_TOKEN sym_minus_operator (
        if la = c_DASH then ADVANCE 211 else
        if la = c_EQ then ADVANCE 148 else
        END_STATE))]"

definition ts_lex_cases_14 :: "(TSStateId \<times> lex_body) list" where
  "ts_lex_cases_14 = [
     (216, \<lambda>eof la. ACCEPT_TOKEN anon_sym_BANG (
        END_STATE)),
     (217, \<lambda>eof la. ACCEPT_TOKEN anon_sym_BANG (
        if la = c_EQ then ADVANCE 172 else
        END_STATE)),
     (218, \<lambda>eof la. ACCEPT_TOKEN anon_sym_TILDE (
        END_STATE)),
     (219, \<lambda>eof la. ACCEPT_TOKEN anon_sym_TILDE (
        if la = c_SLASH then ADVANCE 210 else
        END_STATE)),
     (220, \<lambda>eof la. ACCEPT_TOKEN anon_sym_TILDE (
        if la = c_SLASH then ADVANCE 209 else
        END_STATE)),
     (221, \<lambda>eof la. ACCEPT_TOKEN anon_sym_as (
        END_STATE)),
     (222, \<lambda>eof la. ACCEPT_TOKEN anon_sym_as (
        if la = c_y then ADVANCE 259 else
        if la = c_DOLLAR \<or> c_0 \<le> la \<and> la \<le> c_9 \<or> c_A \<le> la \<and> la \<le> c_Z \<or> la = c_UNDERSCORE \<or> c_a \<le> la \<and> la \<le> c_z then ADVANCE 267 else
        END_STATE)),
     (223, \<lambda>eof la. ACCEPT_TOKEN anon_sym_as (
        if la = c_DOLLAR \<or> c_0 \<le> la \<and> la \<le> c_9 \<or> c_A \<le> la \<and> la \<le> c_Z \<or> la = c_UNDERSCORE \<or> c_a \<le> la \<and> la \<le> c_z then ADVANCE 267 else
        END_STATE)),
     (224, \<lambda>eof la. ACCEPT_TOKEN anon_sym_DOT (
        END_STATE)),
     (225, \<lambda>eof la. ACCEPT_TOKEN anon_sym_DOT (
        if la = c_DOT then ADVANCE 232 else
        if c_0 \<le> la \<and> la \<le> c_9 then ADVANCE 109 else
        END_STATE)),
     (226, \<lambda>eof la. ACCEPT_TOKEN anon_sym_DOT (
        if la = c_DOT then ADVANCE 231 else
        END_STATE)),
     (227, \<lambda>eof la. ACCEPT_TOKEN anon_sym_DOT (
        if la = c_DOT then ADVANCE 231 else
        if c_0 \<le> la \<and> la \<le> c_9 then ADVANCE 109 else
        END_STATE)),
     (228, \<lambda>eof la. ACCEPT_TOKEN anon_sym_DOT (
        if c_0 \<le> la \<and> la \<le> c_9 then ADVANCE 109 else
        END_STATE)),
     (229, \<lambda>eof la. ACCEPT_TOKEN anon_sym_QMARK_DOT (
        END_STATE)),
     (230, \<lambda>eof la. ACCEPT_TOKEN anon_sym_QMARK_DOT (
        if la = c_DOT then ADVANCE 233 else
        END_STATE)),
     (231, \<lambda>eof la. ACCEPT_TOKEN anon_sym_DOT_DOT (
        END_STATE)),
     (232, \<lambda>eof la. ACCEPT_TOKEN anon_sym_DOT_DOT (
        if la = c_DOT then ADVANCE 212 else
        END_STATE)),
     (233, \<lambda>eof la. ACCEPT_TOKEN anon_sym_QMARK_DOT_DOT (
        END_STATE)),
     (234, \<lambda>eof la. ACCEPT_TOKEN anon_sym_SEMI (
        END_STATE)),
     (235, \<lambda>eof la. ACCEPT_TOKEN anon_sym_EQ_GT (
        END_STATE)),
     (236, \<lambda>eof la. ACCEPT_TOKEN anon_sym_AT (
        END_STATE)),
     (237, \<lambda>eof la. ACCEPT_TOKEN anon_sym_EQ_EQ (
        END_STATE)),
     (238, \<lambda>eof la. ACCEPT_TOKEN anon_sym_LBRACK_RBRACK (
        if la = c_EQ then ADVANCE 239 else
        END_STATE)),
     (239, \<lambda>eof la. ACCEPT_TOKEN anon_sym_LBRACK_RBRACK_EQ (
        END_STATE)),
     (240, \<lambda>eof la. ACCEPT_TOKEN anon_sym_async (
        if la = c_STAR then ADVANCE 242 else
        END_STATE)),
     (241, \<lambda>eof la. ACCEPT_TOKEN anon_sym_async (
        if la = c_STAR then ADVANCE 242 else
        if la = c_DOLLAR \<or> c_0 \<le> la \<and> la \<le> c_9 \<or> c_A \<le> la \<and> la \<le> c_Z \<or> la = c_UNDERSCORE \<or> c_a \<le> la \<and> la \<le> c_z then ADVANCE 267 else
        END_STATE)),
     (242, \<lambda>eof la. ACCEPT_TOKEN anon_sym_async_STAR (
        END_STATE)),
     (243, \<lambda>eof la. ACCEPT_TOKEN anon_sym_sync_STAR (
        END_STATE)),
     (244, \<lambda>eof la. ACCEPT_TOKEN anon_sym_POUND_BANG (
        END_STATE)),
     (245, \<lambda>eof la. ACCEPT_TOKEN aux_sym_script_tag_token1 (
        if la = c_STAR then ADVANCE 280 else
        if la = c_SLASH then ADVANCE 271 else
        if la \<noteq> 0 \<and> la \<noteq> c_LF then ADVANCE 247 else
        END_STATE)),
     (246, \<lambda>eof la. ACCEPT_TOKEN aux_sym_script_tag_token1 (
        if la = c_SLASH then ADVANCE 245 else
        if la = c_TAB \<or> c_VT \<le> la \<and> la \<le> c_CR \<or> la = c_SPACE then ADVANCE 246 else
        if la \<noteq> 0 \<and> (la < c_TAB \<or> c_CR < la) then ADVANCE 247 else
        END_STATE)),
     (247, \<lambda>eof la. ACCEPT_TOKEN aux_sym_script_tag_token1 (
        if la \<noteq> 0 \<and> la \<noteq> c_LF then ADVANCE 247 else
        END_STATE)),
     (248, \<lambda>eof la. ACCEPT_TOKEN anon_sym_LF (
        if la = c_LF then ADVANCE 248 else
        END_STATE)),
     (249, \<lambda>eof la. ACCEPT_TOKEN sym_part_of_builtin (
        END_STATE)),
     (250, \<lambda>eof la. ACCEPT_TOKEN anon_sym_AMP_AMP (
        END_STATE))]"

definition ts_lex_cases_15 :: "(TSStateId \<times> lex_body) list" where
  "ts_lex_cases_15 = [
     (251, \<lambda>eof la. ACCEPT_TOKEN anon_sym_PIPE_PIPE (
        END_STATE)),
     (252, \<lambda>eof la. ACCEPT_TOKEN sym_identifier (
        if la = c_SPACE then ADVANCE 82 else
        if la = c_DOLLAR \<or> c_0 \<le> la \<and> la \<le> c_9 \<or> c_A \<le> la \<and> la \<le> c_Z \<or> la = c_UNDERSCORE \<or> c_a \<le> la \<and> la \<le> c_z then ADVANCE 267 else
        END_STATE)),
     (253, \<lambda>eof la. ACCEPT_TOKEN sym_identifier (
        if la = c_DQUOTE then ADVANCE 117 else
        if la = c_SQUOTE then ADVANCE 120 else
        if la = c_DOLLAR \<or> c_0 \<le> la \<and> la \<le> c_9 \<or> c_A \<le> la \<and> la \<le> c_Z \<or> la = c_UNDERSCORE \<or> c_a \<le> la \<and> la \<le> c_z then ADVANCE 267 else
        END_STATE)),
     (254, \<lambda>eof la. ACCEPT_TOKEN sym_identifier (
        if la = c_STAR then ADVANCE 243 else
        if la = c_DOLLAR \<or> c_0 \<le> la \<and> la \<le> c_9 \<or> c_A \<le> la \<and> la \<le> c_Z \<or> la = c_UNDERSCORE \<or> c_a \<le> la \<and> la \<le> c_z then ADVANCE 267 else
        END_STATE)),
     (255, \<lambda>eof la. ACCEPT_TOKEN sym_identifier (
        if la = c_a then ADVANCE 260 else
        if la = c_DOLLAR \<or> c_0 \<le> la \<and> la \<le> c_9 \<or> c_A \<le> la \<and> la \<le> c_Z \<or> la = c_UNDERSCORE \<or> c_b \<le> la \<and> la \<le> c_z then ADVANCE 267 else
        END_STATE)),
     (256, \<lambda>eof la. ACCEPT_TOKEN sym_identifier (
        if la = c_c then ADVANCE 254 else
        if la = c_DOLLAR \<or> c_0 \<le> la \<and> la \<le> c_9 \<or> c_A \<le> la \<and> la \<le> c_Z \<or> la = c_UNDERSCORE \<or> c_a \<le> la \<and> la \<le> c_z then ADVANCE 267 else
        END_STATE)),
     (257, \<lambda>eof la. ACCEPT_TOKEN sym_identifier (
        if la = c_c then ADVANCE 241 else
        if la = c_DOLLAR \<or> c_0 \<le> la \<and> la \<le> c_9 \<or> c_A \<le> la \<and> la \<le> c_Z \<or> la = c_UNDERSCORE \<or> c_a \<le> la \<and> la \<le> c_z then ADVANCE 267 else
        END_STATE)),
     (258, \<lambda>eof la. ACCEPT_TOKEN sym_identifier (
        if la = c_n then ADVANCE 256 else
        if la = c_DOLLAR \<or> c_0 \<le> la \<and> la \<le> c_9 \<or> c_A \<le> la \<and> la \<le> c_Z \<or> la = c_UNDERSCORE \<or> c_a \<le> la \<and> la \<le> c_z then ADVANCE 267 else
        END_STATE)),
     (259, \<lambda>eof la. ACCEPT_TOKEN sym_identifier (
        if la = c_n then ADVANCE 257 else
        if la = c_DOLLAR \<or> c_0 \<le> la \<and> la \<le> c_9 \<or> c_A \<le> la \<and> la \<le> c_Z \<or> la = c_UNDERSCORE \<or> c_a \<le> la \<and> la \<le> c_z then ADVANCE 267 else
        END_STATE)),
     (260, \<lambda>eof la. ACCEPT_TOKEN sym_identifier (
        if la = c_r then ADVANCE 264 else
        if la = c_DOLLAR \<or> c_0 \<le> la \<and> la \<le> c_9 \<or> c_A \<le> la \<and> la \<le> c_Z \<or> la = c_UNDERSCORE \<or> c_a \<le> la \<and> la \<le> c_z then ADVANCE 267 else
        END_STATE)),
     (261, \<lambda>eof la. ACCEPT_TOKEN sym_identifier (
        if la = c_s then ADVANCE 222 else
        if la = c_DOLLAR \<or> c_0 \<le> la \<and> la \<le> c_9 \<or> c_A \<le> la \<and> la \<le> c_Z \<or> la = c_UNDERSCORE \<or> c_a \<le> la \<and> la \<le> c_z then ADVANCE 267 else
        END_STATE)),
     (262, \<lambda>eof la. ACCEPT_TOKEN sym_identifier (
        if la = c_s then ADVANCE 223 else
        if la = c_DOLLAR \<or> c_0 \<le> la \<and> la \<le> c_9 \<or> c_A \<le> la \<and> la \<le> c_Z \<or> la = c_UNDERSCORE \<or> c_a \<le> la \<and> la \<le> c_z then ADVANCE 267 else
        END_STATE)),
     (263, \<lambda>eof la. ACCEPT_TOKEN sym_identifier (
        if la = c_s then ADVANCE 266 else
        if la = c_DOLLAR \<or> c_0 \<le> la \<and> la \<le> c_9 \<or> c_A \<le> la \<and> la \<le> c_Z \<or> la = c_UNDERSCORE \<or> c_a \<le> la \<and> la \<le> c_z then ADVANCE 267 else
        END_STATE)),
     (264, \<lambda>eof la. ACCEPT_TOKEN sym_identifier (
        if la = c_t then ADVANCE 252 else
        if la = c_DOLLAR \<or> c_0 \<le> la \<and> la \<le> c_9 \<or> c_A \<le> la \<and> la \<le> c_Z \<or> la = c_UNDERSCORE \<or> c_a \<le> la \<and> la \<le> c_z then ADVANCE 267 else
        END_STATE)),
     (265, \<lambda>eof la. ACCEPT_TOKEN sym_identifier (
        if la = c_y then ADVANCE 258 else
        if la = c_DOLLAR \<or> c_0 \<le> la \<and> la \<le> c_9 \<or> c_A \<le> la \<and> la \<le> c_Z \<or> la = c_UNDERSCORE \<or> c_a \<le> la \<and> la \<le> c_z then ADVANCE 267 else
        END_STATE)),
     (266, \<lambda>eof la. ACCEPT_TOKEN sym_identifier (
        if la = c_y then ADVANCE 259 else
        if la = c_DOLLAR \<or> c_0 \<le> la \<and> la \<le> c_9 \<or> c_A \<le> la \<and> la \<le> c_Z \<or> la = c_UNDERSCORE \<or> c_a \<le> la \<and> la \<le> c_z then ADVANCE 267 else
        END_STATE)),
     (267, \<lambda>eof la. ACCEPT_TOKEN sym_identifier (
        if la = c_DOLLAR \<or> c_0 \<le> la \<and> la \<le> c_9 \<or> c_A \<le> la \<and> la \<le> c_Z \<or> la = c_UNDERSCORE \<or> c_a \<le> la \<and> la \<le> c_z then ADVANCE 267 else
        END_STATE))]"

definition ts_lex_cases_16 :: "(TSStateId \<times> lex_body) list" where
  "ts_lex_cases_16 = [
     (268, \<lambda>eof la. ACCEPT_TOKEN sym_identifier_dollar_escaped (
        if la = c_BSLASH then ADVANCE 36 else
        if c_0 \<le> la \<and> la \<le> c_9 \<or> c_A \<le> la \<and> la \<le> c_Z \<or> la = c_UNDERSCORE \<or> c_a \<le> la \<and> la \<le> c_z then ADVANCE 268 else
        END_STATE)),
     (269, \<lambda>eof la. ACCEPT_TOKEN anon_sym_SLASH_SLASH (
        if la = c_STAR then ADVANCE 283 else
        if la = c_SLASH then ADVANCE 285 else
        if la \<noteq> 0 then ADVANCE 46 else
        END_STATE)),
     (270, \<lambda>eof la. ACCEPT_TOKEN anon_sym_SLASH_SLASH (
        if la = c_SLASH then ADVANCE 284 else
        END_STATE)),
     (271, \<lambda>eof la. ACCEPT_TOKEN anon_sym_SLASH_SLASH (
        if la = c_SLASH then ADVANCE 286 else
        if la \<noteq> 0 \<and> la \<noteq> c_LF then ADVANCE 247 else
        END_STATE)),
     (272, \<lambda>eof la. ACCEPT_TOKEN anon_sym_SLASH_SLASH (
        if la = c_SLASH then ADVANCE 287 else
        if la \<noteq> 0 \<and> la \<noteq> c_LF then ADVANCE 291 else
        END_STATE)),
     (273, \<lambda>eof la. ACCEPT_TOKEN anon_sym_SLASH_SLASH (
        if la = c_SLASH then ADVANCE 288 else
        if la \<noteq> 0 \<and> la \<noteq> c_LF then ADVANCE 277 else
        END_STATE)),
     (274, \<lambda>eof la. ACCEPT_TOKEN aux_sym_comment_token1 (
        if la = c_STAR then ADVANCE 282 else
        if la = c_SLASH then ADVANCE 273 else
        if la \<noteq> 0 \<and> la \<noteq> c_LF then ADVANCE 277 else
        END_STATE)),
     (275, \<lambda>eof la. ACCEPT_TOKEN aux_sym_comment_token1 (
        if la = c_SLASH then ADVANCE 274 else
        if la = c_TAB \<or> c_VT \<le> la \<and> la \<le> c_CR \<or> la = c_SPACE then ADVANCE 275 else
        if la \<noteq> 0 \<and> (la < c_TAB \<or> c_CR < la) then ADVANCE 277 else
        END_STATE)),
     (276, \<lambda>eof la. ACCEPT_TOKEN aux_sym_comment_token1 (
        if la = c_TAB \<or> c_VT \<le> la \<and> la \<le> c_CR \<or> la = c_SPACE then ADVANCE 275 else
        if la \<noteq> 0 \<and> (la < c_TAB \<or> c_CR < la) \<and> la \<noteq> c_SLASH then ADVANCE 277 else
        END_STATE)),
     (277, \<lambda>eof la. ACCEPT_TOKEN aux_sym_comment_token1 (
        if la \<noteq> 0 \<and> la \<noteq> c_LF then ADVANCE 277 else
        END_STATE)),
     (278, \<lambda>eof la. ACCEPT_TOKEN anon_sym_SLASH_STAR (
        END_STATE)),
     (279, \<lambda>eof la. ACCEPT_TOKEN anon_sym_SLASH_STAR (
        if la = c_STAR then ADVANCE 283 else
        if la \<noteq> 0 \<and> la \<noteq> c_SLASH then ADVANCE 46 else
        END_STATE)),
     (280, \<lambda>eof la. ACCEPT_TOKEN anon_sym_SLASH_STAR (
        if la \<noteq> 0 \<and> la \<noteq> c_LF then ADVANCE 247 else
        END_STATE)),
     (281, \<lambda>eof la. ACCEPT_TOKEN anon_sym_SLASH_STAR (
        if la \<noteq> 0 \<and> la \<noteq> c_LF then ADVANCE 291 else
        END_STATE)),
     (282, \<lambda>eof la. ACCEPT_TOKEN anon_sym_SLASH_STAR (
        if la \<noteq> 0 \<and> la \<noteq> c_LF then ADVANCE 277 else
        END_STATE)),
     (283, \<lambda>eof la. ACCEPT_TOKEN aux_sym_comment_token2 (
        if la = c_STAR then ADVANCE 283 else
        if la \<noteq> 0 \<and> la \<noteq> c_SLASH then ADVANCE 46 else
        END_STATE)),
     (284, \<lambda>eof la. ACCEPT_TOKEN anon_sym_SLASH_SLASH_SLASH (
        END_STATE)),
     (285, \<lambda>eof la. ACCEPT_TOKEN anon_sym_SLASH_SLASH_SLASH (
        if la = c_STAR then ADVANCE 283 else
        if la \<noteq> 0 then ADVANCE 46 else
        END_STATE)),
     (286, \<lambda>eof la. ACCEPT_TOKEN anon_sym_SLASH_SLASH_SLASH (
        if la \<noteq> 0 \<and> la \<noteq> c_LF then ADVANCE 247 else
        END_STATE)),
     (287, \<lambda>eof la. ACCEPT_TOKEN anon_sym_SLASH_SLASH_SLASH (
        if la \<noteq> 0 \<and> la \<noteq> c_LF then ADVANCE 291 else
        END_STATE)),
     (288, \<lambda>eof la. ACCEPT_TOKEN anon_sym_SLASH_SLASH_SLASH (
        if la \<noteq> 0 \<and> la \<noteq> c_LF then ADVANCE 277 else
        END_STATE)),
     (289, \<lambda>eof la. ACCEPT_TOKEN aux_sym_documentation_comment_token1 (
        if la = c_STAR then ADVANCE 281 else
        if la = c_SLASH then ADVANCE 272 else
        if la \<noteq> 0 \<and> la \<noteq> c_LF then ADVANCE 291 else
        END_STATE)),
     (290, \<lambda>eof la. ACCEPT_TOKEN aux_sym_documentation_comment_token1 (
        if la = c_SLASH then ADVANCE 289 else
        if la = c_TAB \<or> c_VT \<le> la \<and> la \<le> c_CR \<or> la = c_SPACE then ADVANCE 290 else
        if la \<noteq> 0 \<and> (la < c_TAB \<or> c_CR < la) then ADVANCE 291 else
        END_STATE)),
     (291, \<lambda>eof la. ACCEPT_TOKEN aux_sym_documentation_comment_token1 (
        if la \<noteq> 0 \<and> la \<noteq> c_LF then ADVANCE 291 else
        END_STATE))]"

subsection \<open>The switch and the lexer\<close>

definition ts_lex_cases :: "(TSStateId \<times> lex_body) list" where
  "ts_lex_cases = ts_lex_cases_1 @ ts_lex_cases_2 @ ts_lex_cases_3 @ ts_lex_cases_4 @ ts_lex_cases_5 @
     ts_lex_cases_6 @ ts_lex_cases_7 @ ts_lex_cases_8 @ ts_lex_cases_9 @ ts_lex_cases_10 @
     ts_lex_cases_11 @ ts_lex_cases_12 @ ts_lex_cases_13 @ ts_lex_cases_14 @ ts_lex_cases_15 @
     ts_lex_cases_16"

definition ts_lex_switch :: lex_cases where
  "ts_lex_switch = map_of ts_lex_cases"

definition ts_lex ::
  "'p TSLexer_scheme TSLexer_ops \<Rightarrow> TSStateId \<Rightarrow> 'p TSLexer_scheme \<Rightarrow> (bool \<times> 'p TSLexer_scheme) option"
  where "ts_lex ops state l = lex_loop ts_lex_switch ops False state l"

subsection \<open>The cases are well formed\<close>

lemma lex_keys:
  "map fst ts_lex_cases_1 = [0..<5]"
  "map fst ts_lex_cases_2 = [5..<9]"
  "map fst ts_lex_cases_3 = [9..<13]"
  "map fst ts_lex_cases_4 = [13..<19]"
  "map fst ts_lex_cases_5 = [19..<24]"
  "map fst ts_lex_cases_6 = [24..<28]"
  "map fst ts_lex_cases_7 = [28..<41]"
  "map fst ts_lex_cases_8 = [41..<76]"
  "map fst ts_lex_cases_9 = [76..<100]"
  "map fst ts_lex_cases_10 = [100..<109]"
  "map fst ts_lex_cases_11 = [109..<138]"
  "map fst ts_lex_cases_12 = [138..<178]"
  "map fst ts_lex_cases_13 = [178..<216]"
  "map fst ts_lex_cases_14 = [216..<251]"
  "map fst ts_lex_cases_15 = [251..<268]"
  "map fst ts_lex_cases_16 = [268..<292]"
  by (simp add: ts_lex_cases_1_def upt_from_0)
    (simp_all add: ts_lex_cases_2_def ts_lex_cases_3_def ts_lex_cases_4_def ts_lex_cases_5_def
      ts_lex_cases_6_def ts_lex_cases_7_def ts_lex_cases_8_def ts_lex_cases_9_def
      ts_lex_cases_10_def ts_lex_cases_11_def ts_lex_cases_12_def ts_lex_cases_13_def
      ts_lex_cases_14_def ts_lex_cases_15_def ts_lex_cases_16_def)

lemma lex_cases_ok_1: "list_all (\<lambda>(s, b). case_ok 292 [103] b) ts_lex_cases_1"
  by (simp add: case_ok_def ts_lex_cases_1_def)

lemma lex_cases_ok_2: "list_all (\<lambda>(s, b). case_ok 292 [103] b) ts_lex_cases_2"
  by (simp add: case_ok_def ts_lex_cases_2_def)

lemma lex_cases_ok_3: "list_all (\<lambda>(s, b). case_ok 292 [103] b) ts_lex_cases_3"
  by (simp add: case_ok_def ts_lex_cases_3_def)

lemma lex_cases_ok_4: "list_all (\<lambda>(s, b). case_ok 292 [103] b) ts_lex_cases_4"
  by (simp add: case_ok_def ts_lex_cases_4_def)

lemma lex_cases_ok_5: "list_all (\<lambda>(s, b). case_ok 292 [103] b) ts_lex_cases_5"
  by (simp add: case_ok_def ts_lex_cases_5_def)

lemma lex_cases_ok_6: "list_all (\<lambda>(s, b). case_ok 292 [103] b) ts_lex_cases_6"
  by (simp add: case_ok_def ts_lex_cases_6_def)

lemma lex_cases_ok_7: "list_all (\<lambda>(s, b). case_ok 292 [103] b) ts_lex_cases_7"
  by (simp add: case_ok_def ts_lex_cases_7_def)

lemma lex_cases_ok_8: "list_all (\<lambda>(s, b). case_ok 292 [103] b) ts_lex_cases_8"
  by (simp add: case_ok_def ts_lex_cases_8_def)

lemma lex_cases_ok_9: "list_all (\<lambda>(s, b). case_ok 292 [103] b) ts_lex_cases_9"
  by (simp add: case_ok_def ts_lex_cases_9_def)

lemma lex_cases_ok_10: "list_all (\<lambda>(s, b). case_ok 292 [103] b) ts_lex_cases_10"
  by (simp add: case_ok_def ts_lex_cases_10_def)

lemma lex_cases_ok_11: "list_all (\<lambda>(s, b). case_ok 292 [103] b) ts_lex_cases_11"
  by (simp add: case_ok_def ts_lex_cases_11_def)

lemma lex_cases_ok_12: "list_all (\<lambda>(s, b). case_ok 292 [103] b) ts_lex_cases_12"
  by (simp add: case_ok_def ts_lex_cases_12_def)

lemma lex_cases_ok_13: "list_all (\<lambda>(s, b). case_ok 292 [103] b) ts_lex_cases_13"
  by (simp add: case_ok_def ts_lex_cases_13_def)

lemma lex_cases_ok_14: "list_all (\<lambda>(s, b). case_ok 292 [103] b) ts_lex_cases_14"
  by (simp add: case_ok_def ts_lex_cases_14_def)

lemma lex_cases_ok_15: "list_all (\<lambda>(s, b). case_ok 292 [103] b) ts_lex_cases_15"
  by (simp add: case_ok_def ts_lex_cases_15_def)

lemma lex_cases_ok_16: "list_all (\<lambda>(s, b). case_ok 292 [103] b) ts_lex_cases_16"
  by (simp add: case_ok_def ts_lex_cases_16_def)

lemma lex_keys_all: "map fst ts_lex_cases = [0..<292]"
  by (simp add: ts_lex_cases_def lex_keys upt_join del: upt_rec_numeral)

lemmas lex_cases_ok =
  lex_cases_ok_1 lex_cases_ok_2 lex_cases_ok_3 lex_cases_ok_4 lex_cases_ok_5 lex_cases_ok_6
  lex_cases_ok_7 lex_cases_ok_8 lex_cases_ok_9 lex_cases_ok_10 lex_cases_ok_11
  lex_cases_ok_12 lex_cases_ok_13 lex_cases_ok_14 lex_cases_ok_15 lex_cases_ok_16

lemmas lex_other =
  map_of_other [OF lex_keys(1)]
  map_of_other [OF lex_keys(2)]
  map_of_other [OF lex_keys(3)]
  map_of_other [OF lex_keys(4)]
  map_of_other [OF lex_keys(5)]
  map_of_other [OF lex_keys(6)]
  map_of_other [OF lex_keys(7)]
  map_of_other [OF lex_keys(8)]
  map_of_other [OF lex_keys(9)]
  map_of_other [OF lex_keys(10)]
  map_of_other [OF lex_keys(11)]
  map_of_other [OF lex_keys(12)]
  map_of_other [OF lex_keys(13)]
  map_of_other [OF lex_keys(14)]
  map_of_other [OF lex_keys(15)]
  map_of_other [OF lex_keys(16)]

text \<open>Looking a state up in the group of cases it belongs to.\<close>

lemma lex_lookup:
  "s < 5 \<Longrightarrow> map_of ts_lex_cases s = map_of ts_lex_cases_1 s"
  "5 \<le> s \<Longrightarrow> s < 9 \<Longrightarrow> map_of ts_lex_cases s = map_of ts_lex_cases_2 s"
  "9 \<le> s \<Longrightarrow> s < 13 \<Longrightarrow> map_of ts_lex_cases s = map_of ts_lex_cases_3 s"
  "13 \<le> s \<Longrightarrow> s < 19 \<Longrightarrow> map_of ts_lex_cases s = map_of ts_lex_cases_4 s"
  "19 \<le> s \<Longrightarrow> s < 24 \<Longrightarrow> map_of ts_lex_cases s = map_of ts_lex_cases_5 s"
  "24 \<le> s \<Longrightarrow> s < 28 \<Longrightarrow> map_of ts_lex_cases s = map_of ts_lex_cases_6 s"
  "28 \<le> s \<Longrightarrow> s < 41 \<Longrightarrow> map_of ts_lex_cases s = map_of ts_lex_cases_7 s"
  "41 \<le> s \<Longrightarrow> s < 76 \<Longrightarrow> map_of ts_lex_cases s = map_of ts_lex_cases_8 s"
  "76 \<le> s \<Longrightarrow> s < 100 \<Longrightarrow> map_of ts_lex_cases s = map_of ts_lex_cases_9 s"
  "100 \<le> s \<Longrightarrow> s < 109 \<Longrightarrow> map_of ts_lex_cases s = map_of ts_lex_cases_10 s"
  "109 \<le> s \<Longrightarrow> s < 138 \<Longrightarrow> map_of ts_lex_cases s = map_of ts_lex_cases_11 s"
  "138 \<le> s \<Longrightarrow> s < 178 \<Longrightarrow> map_of ts_lex_cases s = map_of ts_lex_cases_12 s"
  "178 \<le> s \<Longrightarrow> s < 216 \<Longrightarrow> map_of ts_lex_cases s = map_of ts_lex_cases_13 s"
  "216 \<le> s \<Longrightarrow> s < 251 \<Longrightarrow> map_of ts_lex_cases s = map_of ts_lex_cases_14 s"
  "251 \<le> s \<Longrightarrow> s < 268 \<Longrightarrow> map_of ts_lex_cases s = map_of ts_lex_cases_15 s"
  "268 \<le> s \<Longrightarrow> s < 292 \<Longrightarrow> map_of ts_lex_cases s = map_of ts_lex_cases_16 s"
  by (simp_all add: ts_lex_cases_def map_add_def lex_other split: option.split)

lemma lex_eof_state: "stops_at_eof ts_lex_cases 103"
  by (simp add: stops_at_eof_def lex_lookup(10) ts_lex_cases_10_def)

interpretation lx: lex_switch ts_lex_switch
  unfolding ts_lex_switch_def
  by (rule lex_switchI [OF lex_keys_all, of "[103]"])
    (simp_all add: lex_eof_state, simp add: ts_lex_cases_def lex_cases_ok)

end
