(* ===== verification/Dart_Texts.thy ===== *)
theory Dart_Texts
  imports Lexemes C_Chars Dart_Symbols
begin

text \<open>
  What the tokens of the Dart grammar look like: predicates on code point lists for the families
  of texts (identifiers, numbers, escapes, comment lines and bodies, delimiters after blanks), how
  they grow by one code point, and the table \<open>dart_lexeme\<close> that gives every symbol the main lexer
  can return the description of its text.
\<close>

named_theorems text_rules \<open>how the families of texts grow\<close>

subsection \<open>Fixed texts, blanks and lines\<close>

definition texts :: "string list \<Rightarrow> code_point list \<Rightarrow> bool" where
  "texts ts w \<longleftrightarrow> w \<in> set (map codes ts)"

text \<open>A fixed text after any number of code points of a kind (blanks, blanks of the same line).\<close>

definition led :: "(code_point \<Rightarrow> bool) \<Rightarrow> string \<Rightarrow> code_point list \<Rightarrow> bool" where
  "led P s w \<longleftrightarrow> (\<exists>b. list_all P b \<and> w = b @ codes s)"

definition is_line_blank :: "code_point \<Rightarrow> bool" where
  "is_line_blank c \<longleftrightarrow> is_blank c \<and> c \<noteq> 10"

text \<open>The text of a line comment: its end (line feed, NUL) does not belong to it.\<close>

definition line_text :: "code_point list \<Rightarrow> bool" where
  "line_text w \<longleftrightarrow> list_all (\<lambda>c. c \<noteq> 10 \<and> c \<noteq> 0) w"

definition no_slash_first :: "code_point list \<Rightarrow> bool" where
  "no_slash_first w \<longleftrightarrow> (\<forall>v. w \<noteq> 47 # v)"

definition line_feeds :: "code_point list \<Rightarrow> bool" where
  "line_feeds w \<longleftrightarrow> w \<noteq> [] \<and> list_all (\<lambda>c. c = 10) w"

text \<open>One code point after white space.\<close>

definition sub_string_text :: "code_point list \<Rightarrow> bool" where
  "sub_string_text w \<longleftrightarrow> w \<noteq> [] \<and> list_all is_blank (butlast w)"

lemma texts_simps [text_rules]: "texts [] w = False" "texts (t # ts) w \<longleftrightarrow> w = codes t \<or> texts ts w"
  by (auto simp: texts_def)

lemma led_Cons [text_rules]:
  "led P s [] \<longleftrightarrow> s = []"
  "led P s (c # w) \<longleftrightarrow> P c \<and> led P s w \<or> c # w = codes s"
  by (auto simp: led_def Cons_eq_append_conv intro: exI [of _ "[]"])

lemma led_snoc [text_rules]:
  "s \<noteq> [] \<Longrightarrow> led P s (w @ [c]) \<longleftrightarrow> c = CH (last s) \<and> led P (butlast s) w"
  "led P [] (w @ [c]) \<longleftrightarrow> P c \<and> led P [] w"
  by (cases s rule: rev_cases; auto simp: led_def)+

lemma led_mono: "led P s w \<Longrightarrow> (\<And>c. P c \<Longrightarrow> Q c) \<Longrightarrow> led Q s w"
  unfolding led_def by (metis list.pred_mono_strong)

lemma led_line_blank [text_rules]: "led is_line_blank s w \<Longrightarrow> led is_blank s w"
  by (erule led_mono) (simp add: is_line_blank_def)

lemma line_text_simps [text_rules]:
  "line_text []" "line_text (c # w) \<longleftrightarrow> c \<noteq> 10 \<and> c \<noteq> 0 \<and> line_text w"
  "line_text (v @ w) \<longleftrightarrow> line_text v \<and> line_text w"
  by (simp_all add: line_text_def)

lemma led_line_text:
  assumes "led is_line_blank s w" and "line_text (codes s)"
  shows "line_text w"
proof -
  have "list_all is_line_blank b \<Longrightarrow> line_text b" for b
    by (induction b) (auto simp: is_line_blank_def is_blank_def line_text_simps)
  with assms show ?thesis by (auto simp: led_def line_text_simps)
qed

lemma no_slash_first_simps [text_rules]:
  "no_slash_first []" "no_slash_first (c # w) \<longleftrightarrow> c \<noteq> 47"
  "no_slash_first (v @ [c]) \<longleftrightarrow> no_slash_first v \<and> (v = [] \<longrightarrow> c \<noteq> 47)"
  by (auto simp: no_slash_first_def append_eq_Cons_conv)

lemma line_feeds_simps [text_rules]:
  "line_feeds [c] \<longleftrightarrow> c = 10" "line_feeds (w @ [c]) \<longleftrightarrow> c = 10 \<and> (w = [] \<or> line_feeds w)"
  by (auto simp: line_feeds_def)

lemma sub_string_text_simps [text_rules]:
  "sub_string_text [c]" "sub_string_text (w @ [c]) \<longleftrightarrow> led is_blank [] w"
  by (auto simp: sub_string_text_def led_def)

lemma sub_string_text_led [text_rules]:
  "led is_blank [] w \<Longrightarrow> w \<noteq> [] \<Longrightarrow> sub_string_text w" "led is_blank [a] w \<Longrightarrow> sub_string_text w"
  by (auto simp: sub_string_text_def led_def butlast_append dest: in_set_butlastD
      simp flip: in_set_conv_decomp) (auto simp: list_all_iff dest: in_set_butlastD)

subsection \<open>Comment bodies\<close>

text \<open>The text of a block comment up to its last star: no closing delimiter inside.\<close>

definition no_close :: "code_point list \<Rightarrow> bool" where
  "no_close w \<longleftrightarrow> (\<forall>u v. w \<noteq> u @ [42, 47] @ v)"

definition ends_star :: "code_point list \<Rightarrow> bool" where
  "ends_star w \<longleftrightarrow> w \<noteq> [] \<and> last w = 42"

lemma no_close_Nil [text_rules]: "no_close []"
  by (simp add: no_close_def)

lemma no_close_snoc [text_rules]:
  "no_close (w @ [c]) \<longleftrightarrow> no_close w \<and> \<not> (ends_star w \<and> c = 47)"
proof
  assume n: "no_close (w @ [c])"
  have "no_close w"
    unfolding no_close_def
  proof (intro allI notI)
    fix u v assume "w = u @ [42, 47] @ v"
    with n show False unfolding no_close_def by (metis append.assoc)
  qed
  moreover have "\<not> (ends_star w \<and> c = 47)"
  proof
    assume "ends_star w \<and> c = 47"
    then have "w @ [c] = butlast w @ [42, 47] @ []"
      unfolding ends_star_def by (metis append_butlast_last_id append.assoc append_Cons append_Nil)
    with n show False unfolding no_close_def by blast
  qed
  ultimately show "no_close w \<and> \<not> (ends_star w \<and> c = 47)" ..
next
  assume n: "no_close w \<and> \<not> (ends_star w \<and> c = 47)"
  show "no_close (w @ [c])"
    unfolding no_close_def
  proof (intro allI notI)
    fix u v assume e: "w @ [c] = u @ [42, 47] @ v"
    show False
    proof (cases v rule: rev_cases)
      case Nil
      with e have "w = u @ [42]" "c = 47" by auto
      with n show False by (simp add: ends_star_def)
    next
      case (snoc v' d)
      with e have "w = u @ [42, 47] @ v'" by simp
      with n show False unfolding no_close_def by blast
    qed
  qed
qed

lemma no_close_Cons [text_rules]:
  "no_close [c]" "no_close (a # b # w) \<longleftrightarrow> \<not> (a = 42 \<and> b = 47) \<and> no_close (b # w)"
  by (auto simp: no_close_def Cons_eq_append_conv append_eq_Cons_conv)

lemma ends_star_simps [text_rules]:
  "\<not> ends_star []" "ends_star (w @ [c]) \<longleftrightarrow> c = 42" "ends_star [c] \<longleftrightarrow> c = 42"
  by (simp_all add: ends_star_def)

lemma led_no_close:
  assumes "led is_blank s w" and "no_close (codes s)" and "s \<noteq> []"
  shows "no_close w" and "ends_star w \<longleftrightarrow> last s = CHR ''*''"
proof -
  from assms obtain b where b: "list_all is_blank b" "w = b @ codes s" by (auto simp: led_def)
  have s: "last (codes s) = CH (last s)" using assms(3) by (simp add: codes_def last_map)
  have "CH (last s) = 42 \<longleftrightarrow> last s = CHR ''*''" using CH_inject [of "last s" "CHR ''*''"] by simp
  then show "ends_star w \<longleftrightarrow> last s = CHR ''*''" using b s assms(3) by (simp add: ends_star_def)
  have "no_close (b @ v)" if "no_close v" for v
    using that b(1)
  proof (induction b)
    case (Cons c b)
    then have "no_close (b @ v)" "c \<noteq> 42" by (auto simp: is_blank_def)
    then show ?case by (auto simp: no_close_def Cons_eq_append_conv)
  qed simp
  with assms(2) b(2) show "no_close w" by simp
qed

lemma led_blanks [text_rules]:
  assumes "led is_blank [] w"
  shows "no_close w" and "\<not> ends_star w"
proof -
  have "no_close w \<and> \<not> ends_star w"
    using assms
  proof (induction w rule: rev_induct)
    case (snoc c w)
    then show ?case by (auto simp: led_snoc no_close_snoc ends_star_simps is_blank_def)
  qed (simp add: no_close_Nil ends_star_simps)
  then show "no_close w" and "\<not> ends_star w" by auto
qed

text \<open>The instances the cases of the lexer need.\<close>

lemmas led_no_close_cases [text_rules] =
  led_no_close [of "''/''"] led_no_close [of "''//''"] led_no_close [of "''///''"] led_no_close [of "''/*''"]

lemmas led_line_text_cases [text_rules] =
  led_line_text [of "[]"] led_line_text [of "''/''"] led_line_text [of "''//''"]
  led_line_text [of "''///''"] led_line_text [of "''/*''"]

subsection \<open>Identifiers\<close>

definition ident_start :: "code_point \<Rightarrow> bool" where
  "ident_start c \<longleftrightarrow> is_letter c \<or> c = 95 \<or> c = 36"

definition ident_char :: "code_point \<Rightarrow> bool" where
  "ident_char c \<longleftrightarrow> ident_start c \<or> is_digit c"

definition ident :: "code_point list \<Rightarrow> bool" where
  "ident w \<longleftrightarrow> w \<noteq> [] \<and> ident_start (hd w) \<and> list_all ident_char w"

lemma ident_simps [text_rules]:
  "\<not> ident []"
  "ident (c # w) \<longleftrightarrow> ident_start c \<and> list_all ident_char w"
  "ident w \<Longrightarrow> ident (w @ [c]) \<longleftrightarrow> ident_char c"
  by (auto simp: ident_def ident_char_def)

text \<open>An identifier inside a string, with escaped dollar signs, possibly after blanks.\<close>

definition escaped_char :: "code_point \<Rightarrow> bool" where
  "escaped_char c \<longleftrightarrow> ident_char c \<or> c = 92"

definition escaped_ident :: "code_point list \<Rightarrow> bool" where
  "escaped_ident w \<longleftrightarrow> (\<exists>b v. list_all is_blank b \<and> w = b @ v \<and> v \<noteq> [] \<and> list_all escaped_char v)"

lemma escaped_ident_snoc [text_rules]:
  "escaped_ident w \<Longrightarrow> escaped_char c \<Longrightarrow> escaped_ident (w @ [c])"
  "escaped_ident [c] \<longleftrightarrow> escaped_char c"
  "led is_blank s w \<Longrightarrow> s = [CHR 0x5C] \<Longrightarrow> c = 36 \<Longrightarrow> escaped_ident (w @ [c])"
proof -
  assume w: "escaped_ident w" and c: "escaped_char c"
  then obtain b v where "list_all is_blank b" "w = b @ v" "v \<noteq> []" "list_all escaped_char v"
    by (auto simp: escaped_ident_def)
  with c show "escaped_ident (w @ [c])"
    unfolding escaped_ident_def by (intro exI [of _ b] exI [of _ "v @ [c]"]) simp
next
  show "escaped_ident [c] \<longleftrightarrow> escaped_char c"
    by (auto simp: escaped_ident_def Cons_eq_append_conv intro: exI [of _ "[]"])
  show "led is_blank s w \<Longrightarrow> s = [CHR 0x5C] \<Longrightarrow> c = 36 \<Longrightarrow> escaped_ident (w @ [c])"
    unfolding led_def escaped_ident_def
    by (force simp: escaped_char_def ident_char_def ident_start_def)
qed

subsection \<open>Numbers\<close>

text \<open>
  Digits and underscores that start with a digit, and those that end with one too; a mantissa
  with a point; a mantissa with an exponent.
\<close>

definition digits_part :: "code_point list \<Rightarrow> bool" where
  "digits_part w \<longleftrightarrow> w \<noteq> [] \<and> is_digit (hd w) \<and> list_all (\<lambda>c. is_digit c \<or> c = 95) w"

definition digits :: "code_point list \<Rightarrow> bool" where
  "digits w \<longleftrightarrow> digits_part w \<and> is_digit (last w)"

definition fraction :: "(code_point list \<Rightarrow> bool) \<Rightarrow> code_point list \<Rightarrow> bool" where
  "fraction P w \<longleftrightarrow> (\<exists>a b. w = a @ [46] @ b \<and> (a = [] \<or> digits a) \<and> P b)"

definition exponent :: "(code_point list \<Rightarrow> bool) \<Rightarrow> code_point list \<Rightarrow> bool" where
  "exponent P w \<longleftrightarrow> (\<exists>m e g. w = m @ [e] @ g \<and> (digits m \<or> fraction digits m) \<and>
     (e = 69 \<or> e = 101) \<and> P g)"

definition signed :: "(code_point list \<Rightarrow> bool) \<Rightarrow> code_point list \<Rightarrow> bool" where
  "signed P g \<longleftrightarrow> (\<exists>s h. g = s @ h \<and> (s = [] \<or> s = [43] \<or> s = [45]) \<and> P h)"

definition hex_digit :: "code_point \<Rightarrow> bool" where
  "hex_digit c \<longleftrightarrow> is_digit c \<or> 65 \<le> c \<and> c \<le> 70 \<or> 97 \<le> c \<and> c \<le> 102"

definition hex_part :: "code_point list \<Rightarrow> bool" where
  "hex_part w \<longleftrightarrow> (\<exists>x b. w = [48, x] @ b \<and> (x = 88 \<or> x = 120) \<and> (b = [] \<or> hex_digit (hd b)) \<and>
     list_all (\<lambda>c. hex_digit c \<or> c = 95) b)"

definition hex_number :: "code_point list \<Rightarrow> bool" where
  "hex_number w \<longleftrightarrow> hex_part w \<and> hex_digit (last w) \<and> length w > 2"

lemma digits_part_snoc [text_rules]:
  "digits_part w \<Longrightarrow> is_digit c \<Longrightarrow> digits (w @ [c])"
  "digits_part w \<Longrightarrow> c = 95 \<Longrightarrow> digits_part (w @ [c])"
  "digits w \<Longrightarrow> digits_part w"
  "is_digit c \<Longrightarrow> digits [c]"
  by (auto simp: digits_def digits_part_def)

lemma fraction_Nil [text_rules]:
  "digits w \<Longrightarrow> c = 46 \<Longrightarrow> fraction (\<lambda>g. g = []) (w @ [c])" "fraction (\<lambda>g. g = []) [46]"
  by (auto simp: fraction_def)

lemma fraction_snoc:
  assumes "fraction P w" and "\<And>g. P g \<Longrightarrow> Q (g @ [c])"
  shows "fraction Q (w @ [c])"
proof -
  from assms(1) obtain a b where "w = a @ [46] @ b" "a = [] \<or> digits a" "P b"
    by (auto simp: fraction_def)
  with assms(2) show ?thesis unfolding fraction_def by (intro exI [of _ a] exI [of _ "b @ [c]"]) simp
qed

lemma exponent_Nil [text_rules]:
  "digits w \<Longrightarrow> c = 69 \<or> c = 101 \<Longrightarrow> exponent (\<lambda>g. g = []) (w @ [c])"
  "fraction digits w \<Longrightarrow> c = 69 \<or> c = 101 \<Longrightarrow> exponent (\<lambda>g. g = []) (w @ [c])"
  unfolding exponent_def by fastforce+

lemma exponent_snoc:
  assumes "exponent P w" and "\<And>g. P g \<Longrightarrow> Q (g @ [c])"
  shows "exponent Q (w @ [c])"
proof -
  from assms(1) obtain m e g where "w = m @ [e] @ g" "digits m \<or> fraction digits m"
    "e = 69 \<or> e = 101" "P g"
    by (auto simp: exponent_def)
  with assms(2) show ?thesis
    unfolding exponent_def by (intro exI [of _ m] exI [of _ e] exI [of _ "g @ [c]"]) simp
qed

lemma signed_snoc:
  assumes "signed P w" and "\<And>g. P g \<Longrightarrow> Q (g @ [c])"
  shows "signed Q (w @ [c])"
proof -
  from assms(1) obtain s h where "w = s @ h" "s = [] \<or> s = [43] \<or> s = [45]" "P h"
    by (auto simp: signed_def)
  with assms(2) show ?thesis unfolding signed_def by (intro exI [of _ s] exI [of _ "h @ [c]"]) simp
qed

lemma signed_start [text_rules]:
  "is_digit c \<Longrightarrow> signed digits [c]"
  "s = 43 \<or> s = 45 \<Longrightarrow> is_digit c \<Longrightarrow> signed digits [s, c]"
  unfolding signed_def
  by (rule exI [of _ "[]"], simp add: digits_part_snoc)
    (rule exI [of _ "[s]"], simp add: digits_part_snoc)

text \<open>The stages of a floating point literal.\<close>

lemma float_snoc [text_rules]:
  "fraction (\<lambda>g. g = []) w \<Longrightarrow> is_digit c \<Longrightarrow> fraction digits (w @ [c])"
  "is_digit c \<Longrightarrow> fraction digits [46, c]"
  "fraction digits w \<Longrightarrow> is_digit c \<Longrightarrow> fraction digits (w @ [c])"
  "fraction digits_part w \<Longrightarrow> is_digit c \<Longrightarrow> fraction digits (w @ [c])"
  "fraction digits w \<Longrightarrow> c = 95 \<Longrightarrow> fraction digits_part (w @ [c])"
  "fraction digits_part w \<Longrightarrow> c = 95 \<Longrightarrow> fraction digits_part (w @ [c])"
proof -
  show "is_digit c \<Longrightarrow> fraction digits [46, c]"
    using fraction_snoc [OF fraction_Nil(2), of digits c] by (simp add: digits_part_snoc)
qed (erule fraction_snoc, auto intro: digits_part_snoc)+

lemma exponent_stages [text_rules]:
  "exponent (\<lambda>g. g = []) w \<Longrightarrow> is_digit c \<Longrightarrow> exponent (signed digits) (w @ [c])"
  "exponent (\<lambda>g. g = []) w \<Longrightarrow> c = 43 \<or> c = 45 \<Longrightarrow>
     exponent (\<lambda>g. g = [43] \<or> g = [45]) (w @ [c])"
  "exponent (\<lambda>g. g = [43] \<or> g = [45]) w \<Longrightarrow> is_digit c \<Longrightarrow> exponent (signed digits) (w @ [c])"
  "exponent (signed digits) w \<Longrightarrow> is_digit c \<Longrightarrow> exponent (signed digits) (w @ [c])"
  "exponent (signed digits_part) w \<Longrightarrow> is_digit c \<Longrightarrow> exponent (signed digits) (w @ [c])"
  "exponent (signed digits) w \<Longrightarrow> c = 95 \<Longrightarrow> exponent (signed digits_part) (w @ [c])"
  "exponent (signed digits_part) w \<Longrightarrow> c = 95 \<Longrightarrow> exponent (signed digits_part) (w @ [c])"
  by (erule exponent_snoc, auto simp: signed_start intro: signed_snoc digits_part_snoc)+

lemma zero_texts [text_rules]:
  "digits [48]" "fraction (\<lambda>g. g = []) [48, 46]" "digits_part [48, 95]"
  "c = 69 \<or> c = 101 \<Longrightarrow> exponent (\<lambda>g. g = []) [48, c]" "is_digit c \<Longrightarrow> digits [48, c]"
proof -
  show z: "digits [48]" by (simp add: digits_def digits_part_def is_digit_def)
  show "fraction (\<lambda>g. g = []) [48, 46]" "digits_part [48, 95]"
    "c = 69 \<or> c = 101 \<Longrightarrow> exponent (\<lambda>g. g = []) [48, c]" "is_digit c \<Longrightarrow> digits [48, c]"
    using fraction_Nil(1) [OF z] digits_part_snoc(2) [OF digits_part_snoc(3) [OF z]]
      exponent_Nil(1) [OF z] digits_part_snoc(1) [OF digits_part_snoc(3) [OF z]]
    by simp_all
qed

lemma hex_snoc [text_rules]:
  "hex_part w \<Longrightarrow> hex_digit c \<Longrightarrow> hex_number (w @ [c])"
  "hex_number w \<Longrightarrow> c = 95 \<Longrightarrow> hex_part (w @ [c])"
  "hex_number w \<Longrightarrow> hex_part w"
  "x = 88 \<or> x = 120 \<Longrightarrow> hex_part [48, x]"
  by (auto simp: hex_part_def hex_number_def hd_append)

subsection \<open>Escape sequences\<close>

definition hex_escape :: "string \<Rightarrow> nat \<Rightarrow> code_point list \<Rightarrow> bool" where
  "hex_escape s n w \<longleftrightarrow> (\<exists>h. w = codes s @ h \<and> length h = n \<and> list_all hex_digit h)"

definition brace_escape :: "code_point list \<Rightarrow> bool" where
  "brace_escape w \<longleftrightarrow> (\<exists>n. hex_escape [CHR 0x5C, CHR ''u'', CHR ''{''] (Suc n) w)"

definition octal_escape :: "nat \<Rightarrow> code_point list \<Rightarrow> bool" where
  "octal_escape n w \<longleftrightarrow> (\<exists>h. w = [92] @ h \<and> length h = n \<and> list_all (\<lambda>c. 48 \<le> c \<and> c \<le> 55) h)"

definition escape_sequence :: "code_point list \<Rightarrow> bool" where
  "escape_sequence w \<longleftrightarrow>
     (\<exists>c. w = [92, c]) \<or> octal_escape 2 w \<or> octal_escape 3 w \<or>
     hex_escape [CHR 0x5C, CHR ''x''] 2 w \<or> hex_escape [CHR 0x5C, CHR ''u''] 4 w \<or>
     (\<exists>v. brace_escape v \<and> w = v @ [125])"

lemma hex_escape_snoc:
  assumes "hex_escape s n w" and "hex_digit c"
  shows "hex_escape s (Suc n) (w @ [c])"
proof -
  from assms(1) obtain h where "w = codes s @ h" "length h = n" "list_all hex_digit h"
    by (auto simp: hex_escape_def)
  with assms(2) show ?thesis unfolding hex_escape_def by (intro exI [of _ "h @ [c]"]) simp
qed

lemma hex_escape_start: "hex_escape s 0 w \<longleftrightarrow> w = codes s"
  by (auto simp: hex_escape_def)

lemma octal_escape_snoc:
  assumes "octal_escape n w" and "48 \<le> c" and "c \<le> 55"
  shows "octal_escape (Suc n) (w @ [c])"
proof -
  from assms(1) obtain h where "w = [92] @ h" "length h = n" "list_all (\<lambda>c. 48 \<le> c \<and> c \<le> 55) h"
    by (auto simp: octal_escape_def)
  with assms(2,3) show ?thesis unfolding octal_escape_def by (intro exI [of _ "h @ [c]"]) simp
qed

lemma octal_escape_1: "octal_escape 1 w \<Longrightarrow> \<exists>c. w = [92, c]"
  by (auto simp: octal_escape_def length_Suc_conv)

lemma brace_escape_snoc:
  "brace_escape w \<Longrightarrow> hex_digit c \<Longrightarrow> brace_escape (w @ [c])"
  "hex_digit c \<Longrightarrow> brace_escape [92, 117, 123, c]"
  using hex_escape_snoc [of "[CHR 0x5C, CHR ''u'', CHR ''{'']" 0 "[92, 117, 123]" c]
  by (auto simp: brace_escape_def hex_escape_start intro: hex_escape_snoc)

text \<open>The stages of an escape sequence.\<close>

abbreviation esc_x :: string where "esc_x \<equiv> [CHR 0x5C, CHR ''x'']"
abbreviation esc_u :: string where "esc_u \<equiv> [CHR 0x5C, CHR ''u'']"

lemma hex_escape_stages [text_rules]:
  "hex_digit c \<Longrightarrow> hex_escape esc_u (Suc 0) [92, 117, c]"
  "hex_escape esc_u (Suc 0) w \<Longrightarrow> hex_digit c \<Longrightarrow> hex_escape esc_u 2 (w @ [c])"
  "hex_escape esc_u 2 w \<Longrightarrow> hex_digit c \<Longrightarrow> hex_escape esc_u 3 (w @ [c])"
  "hex_escape esc_x 0 w \<Longrightarrow> hex_digit c \<Longrightarrow> hex_escape esc_x (Suc 0) (w @ [c])"
  "hex_escape esc_x 0 [92, 120]"
  using hex_escape_snoc [of esc_u 0 "[92, 117]" c] hex_escape_snoc [of esc_u "Suc 0" w c]
    hex_escape_snoc [of esc_u 2 w c] hex_escape_snoc [of esc_x 0 w c]
  by (simp_all add: hex_escape_start numeral_2_eq_2 numeral_3_eq_3)

lemma octal_escape_stages [text_rules]:
  "48 \<le> c \<Longrightarrow> c \<le> 55 \<Longrightarrow> octal_escape (Suc 0) [92, c]"
  "octal_escape (Suc 0) w \<Longrightarrow> 48 \<le> c \<Longrightarrow> c \<le> 55 \<Longrightarrow> octal_escape 2 (w @ [c])"
  using octal_escape_snoc [of 0 "[92]" c] octal_escape_snoc [of "Suc 0" w c]
  by (simp_all add: octal_escape_def numeral_2_eq_2)

lemmas brace_escape_stages [text_rules] = brace_escape_snoc

lemma escape_sequence_stages [text_rules]:
  "hex_escape esc_u 3 w \<Longrightarrow> hex_digit c \<Longrightarrow> escape_sequence (w @ [c])"
  "hex_escape esc_x (Suc 0) w \<Longrightarrow> hex_digit c \<Longrightarrow> escape_sequence (w @ [c])"
  "octal_escape 2 w \<Longrightarrow> 48 \<le> c \<Longrightarrow> c \<le> 55 \<Longrightarrow> escape_sequence (w @ [c])"
  "brace_escape w \<Longrightarrow> c = 125 \<Longrightarrow> escape_sequence (w @ [c])"
  "octal_escape (Suc 0) w \<Longrightarrow> escape_sequence w" "octal_escape 2 w \<Longrightarrow> escape_sequence w"
  "escape_sequence [92, c]"
  unfolding escape_sequence_def
  using hex_escape_snoc [of esc_u 3 w c] hex_escape_snoc [of esc_x "Suc 0" w c]
    octal_escape_snoc [of 2 w c] octal_escape_1 [of w]
  by (simp_all add: eval_nat_numeral)

subsection \<open>The text of every token\<close>

definition text_of :: "(nat \<times> (code_point list \<Rightarrow> bool)) list \<Rightarrow> nat \<Rightarrow> code_point list \<Rightarrow> bool" where
  "text_of al k w = (case map_of al k of None \<Rightarrow> False | Some P \<Rightarrow> P w)"

lemma text_of_all:
  assumes "f = text_of al" and "distinct (map fst al)"
  shows "list_all (\<lambda>(k, P). f k = P) al"
  using assms by (auto simp: list_all_iff text_of_def fun_eq_iff)

lemma text_of_keys: "text_of al k w \<Longrightarrow> map_of al k \<noteq> None"
  by (auto simp: text_of_def split: option.splits)

text \<open>
  Every symbol the main lexer can return with what its text looks like: operators and delimiters
  are their own text (quotes, the dollar sign and the openers of comments may be preceded by white
  space, which the string and comment states of the lexer do not skip), the others are given by
  the predicates above.
\<close>

definition dart_lexemes :: "(TSSymbol \<times> (code_point list \<Rightarrow> bool)) list" where
  "dart_lexemes = [
     (sym_identifier, ident),
     (anon_sym_POUND, texts [''#'']),
     (sym_decimal_integer_literal, digits),
     (sym_hex_integer_literal, hex_number),
     (sym_decimal_floating_point_literal, (\<lambda>w. fraction digits w \<or> exponent (signed digits) w)),
     (anon_sym_DQUOTE, led is_blank [CHR 0x22]),
     (anon_sym_SQUOTE, led is_blank [CHR 0x27]),
     (anon_sym_DQUOTE_DQUOTE_DQUOTE, led is_blank [CHR 0x22, CHR 0x22, CHR 0x22]),
     (anon_sym_SQUOTE_SQUOTE_SQUOTE, led is_blank [CHR 0x27, CHR 0x27, CHR 0x27]),
     (anon_sym_r_DQUOTE, texts [[CHR ''r'', CHR 0x22]]),
     (anon_sym_DOLLAR, led is_blank ''$''),
     (anon_sym_r_SQUOTE, texts [[CHR ''r'', CHR 0x27]]),
     (anon_sym_r_DQUOTE_DQUOTE_DQUOTE, texts [[CHR ''r'', CHR 0x22, CHR 0x22, CHR 0x22]]),
     (anon_sym_r_SQUOTE_SQUOTE_SQUOTE, texts [[CHR ''r'', CHR 0x27, CHR 0x27, CHR 0x27]]),
     (anon_sym_LBRACE, texts [''{'']),
     (anon_sym_RBRACE, texts [''}'']),
     (aux_sym__sub_string_test_token1, sub_string_text),
     (sym__unused_escape_sequence, escape_sequence),
     (anon_sym_LBRACK, texts [''['']),
     (anon_sym_COMMA, texts ['','']),
     (anon_sym_RBRACK, texts ['']'']),
     (anon_sym_COLON, texts ['':'']),
     (anon_sym_LPAREN, texts [''('']),
     (anon_sym_RPAREN, texts ['')'']),
     (anon_sym_EQ, texts [''='']),
     (anon_sym_PLUS_EQ, texts [''+='']),
     (anon_sym_DASH_EQ, texts [''-='']),
     (anon_sym_STAR_EQ, texts [''*='']),
     (anon_sym_SLASH_EQ, texts [''/='']),
     (anon_sym_PERCENT_EQ, texts [''%='']),
     (anon_sym_TILDE_SLASH_EQ, texts [''~/='']),
     (anon_sym_LT_LT_EQ, texts [''<<='']),
     (anon_sym_GT_GT_EQ, texts [''>>='']),
     (anon_sym_GT_GT_GT_EQ, texts [''>>>='']),
     (anon_sym_AMP_EQ, texts [''&='']),
     (anon_sym_CARET_EQ, texts [''^='']),
     (anon_sym_PIPE_EQ, texts [''|='']),
     (anon_sym_QMARK_QMARK_EQ, texts [''??='']),
     (anon_sym_QMARK_QMARK, texts [''??'']),
     (anon_sym_QMARK, texts [''?'']),
     (sym_equality_operator, texts [''!='', ''=='']),
     (anon_sym_LT, texts [''<'']),
     (anon_sym_GT, texts [''>'']),
     (anon_sym_LT_EQ, texts [''<='']),
     (anon_sym_GT_EQ, texts [''>='']),
     (anon_sym_PIPE, texts [''|'']),
     (anon_sym_CARET, texts [''^'']),
     (anon_sym_AMP, texts [''&'']),
     (anon_sym_LT_LT, texts [''<<'']),
     (anon_sym_GT_GT, texts [''>>'']),
     (anon_sym_GT_GT_GT, texts [''>>>'']),
     (sym__additive_operator, texts [''+'', ''-'']),
     (anon_sym_STAR, texts [''*'']),
     (anon_sym_SLASH, texts [''/'']),
     (anon_sym_PERCENT, texts [''%'']),
     (anon_sym_TILDE_SLASH, texts [''~/'']),
     (sym_increment_operator, texts [''++'', ''--'']),
     (anon_sym_DOT_DOT_DOT, texts [''...'']),
     (sym_minus_operator, texts [''-'']),
     (anon_sym_BANG, texts [''!'']),
     (anon_sym_TILDE, texts [''~'']),
     (anon_sym_as, texts [''as'']),
     (anon_sym_DOT, texts [''.'']),
     (anon_sym_QMARK_DOT, texts [''?.'']),
     (anon_sym_DOT_DOT, texts [''..'']),
     (anon_sym_QMARK_DOT_DOT, texts [''?..'']),
     (anon_sym_SEMI, texts ['';'']),
     (anon_sym_EQ_GT, texts [''=>'']),
     (anon_sym_AT, texts [''@'']),
     (anon_sym_EQ_EQ, texts [''=='']),
     (anon_sym_LBRACK_RBRACK, texts [''[]'']),
     (anon_sym_LBRACK_RBRACK_EQ, texts [''[]='']),
     (anon_sym_async, texts [''async'']),
     (anon_sym_async_STAR, texts [''async*'']),
     (anon_sym_sync_STAR, texts [''sync*'']),
     (anon_sym_POUND_BANG, texts [''#!'']),
     (aux_sym_script_tag_token1, (\<lambda>w. line_text w \<and> w \<noteq> [])),
     (anon_sym_LF, line_feeds),
     (sym_part_of_builtin, texts [''part of'']),
     (anon_sym_AMP_AMP, texts [''&&'']),
     (anon_sym_PIPE_PIPE, texts [''||'']),
     (sym_identifier_dollar_escaped, escaped_ident),
     (anon_sym_SLASH_SLASH, led is_blank ''//''),
     (aux_sym_comment_token1, (\<lambda>w. line_text w \<and> no_slash_first w)),
     (anon_sym_SLASH_STAR, led is_blank ''/*''),
     (aux_sym_comment_token2, (\<lambda>w. no_close w \<and> ends_star w)),
     (anon_sym_SLASH_SLASH_SLASH, led is_blank ''///''),
     (aux_sym_documentation_comment_token1, line_text)]"

definition dart_lexeme :: "TSSymbol \<Rightarrow> code_point list \<Rightarrow> bool" where
  "dart_lexeme = text_of dart_lexemes"

lemma dart_lexemes_distinct: "distinct (map fst dart_lexemes)"
  by (simp add: dart_lexemes_def)

lemmas dart_lexeme_eqs =
  text_of_all [OF dart_lexeme_def dart_lexemes_distinct, unfolded dart_lexemes_def, simplified]

end
