(* ===== verification/Dart_Lexemes.thy ===== *)
theory Dart_Lexemes
  imports Dart_Lex Dart_Texts
begin

text \<open>
  Soundness of the main lexer: for every state of \<open>ts_lex_switch\<close> what the text since the start of the
  token can be (\<open>lex_reach\<close>), the check that every case keeps this description and accepts a symbol
  only when the text is one of its lexemes, and what follows for \<open>ts_lex\<close>.
\<close>

subsection \<open>The text read when a state is entered\<close>

definition lex_reach_1 :: "(TSStateId \<times> (code_point list \<Rightarrow> bool)) list" where
  "lex_reach_1 = [
     (0, texts [[]]),
     (1, texts [[]]),
     (2, texts [[]]),
     (3, texts [[]]),
     (4, texts [[]])]"

definition lex_reach_2 :: "(TSStateId \<times> (code_point list \<Rightarrow> bool)) list" where
  "lex_reach_2 = [
     (5, texts [[]]),
     (6, texts [[]]),
     (7, texts [[]]),
     (8, texts [[]])]"

definition lex_reach_3 :: "(TSStateId \<times> (code_point list \<Rightarrow> bool)) list" where
  "lex_reach_3 = [
     (9, texts [[]]),
     (10, texts [[]]),
     (11, texts [[]]),
     (12, texts [[]])]"

definition lex_reach_4 :: "(TSStateId \<times> (code_point list \<Rightarrow> bool)) list" where
  "lex_reach_4 = [
     (13, texts [[]]),
     (14, texts [[]]),
     (15, texts [[]]),
     (16, texts [''#'']),
     (17, texts [[]]),
     (18, texts [[]])]"

definition lex_reach_5 :: "(TSStateId \<times> (code_point list \<Rightarrow> bool)) list" where
  "lex_reach_5 = [
     (19, texts [[]]),
     (20, texts [[]]),
     (21, texts [[]]),
     (22, texts [[]]),
     (23, texts [[]])]"

definition lex_reach_6 :: "(TSStateId \<times> (code_point list \<Rightarrow> bool)) list" where
  "lex_reach_6 = [
     (24, texts [[]]),
     (25, texts [[]]),
     (26, texts [[]]),
     (27, texts [[]])]"

definition lex_reach_7 :: "(TSStateId \<times> (code_point list \<Rightarrow> bool)) list" where
  "lex_reach_7 = [
     (28, texts [[]]),
     (29, texts [[]]),
     (30, led is_blank [CHR 0x22, CHR 0x22]),
     (31, texts [[CHR ''r'', CHR 0x22, CHR 0x22]]),
     (32, texts [[]]),
     (33, texts [[]]),
     (34, texts [[]]),
     (35, texts [[]]),
     (36, escaped_ident),
     (37, texts [''&'']),
     (38, texts [[]]),
     (39, led is_blank [CHR 0x27, CHR 0x27]),
     (40, texts [[CHR ''r'', CHR 0x27, CHR 0x27]])]"

definition lex_reach_8 :: "(TSStateId \<times> (code_point list \<Rightarrow> bool)) list" where
  "lex_reach_8 = [
     (41, texts [[]]),
     (42, texts [''/'']),
     (43, texts [''/'']),
     (44, texts [''sync'']),
     (45, led is_blank []),
     (46, (\<lambda>w. no_close w \<and> \<not> ends_star w)),
     (47, led is_blank ''/''),
     (48, texts [''+'']),
     (49, texts [''..'']),
     (50, texts [''?.'']),
     (51, texts [''.'']),
     (52, texts [''~'']),
     (53, texts [''~'']),
     (54, texts [[]]),
     (55, texts [''~'']),
     (56, texts [''!'', ''='']),
     (57, texts [''='']),
     (58, texts [''%'']),
     (59, texts [''&'']),
     (60, texts [''*'']),
     (61, texts [''+'']),
     (62, texts [''-'']),
     (63, texts [''='']),
     (64, texts [''^'']),
     (65, texts [''|'']),
     (66, texts [''<<'']),
     (67, texts [''>>'']),
     (68, texts [''??'']),
     (69, texts [''~/'']),
     (70, texts [''>>>'']),
     (71, texts [''='']),
     (72, texts [''>'']),
     (73, texts [''['']),
     (74, digits_part),
     (75, fraction digits_part)]"

definition lex_reach_9 :: "(TSStateId \<times> (code_point list \<Rightarrow> bool)) list" where
  "lex_reach_9 = [
     (76, exponent (signed digits_part)),
     (77, texts [''syn'']),
     (78, texts [''asyn'']),
     (79, texts [''part o'']),
     (80, texts [''sy'']),
     (81, texts [''asy'']),
     (82, texts [''part '']),
     (83, texts [''a'']),
     (84, texts [''a'']),
     (85, texts [[CHR 0x5C]]),
     (86, texts [''s'']),
     (87, texts [''as'']),
     (88, texts [[CHR 0x5C, CHR ''u'']]),
     (89, texts [''|'']),
     (90, brace_escape),
     (91, exponent (\<lambda>g. g = [])),
     (92, fraction (\<lambda>g. g = [])),
     (93, exponent (\<lambda>g. g = [43] \<or> g = [45])),
     (94, (\<lambda>w. hex_escape esc_x (Suc 0) w \<or> hex_escape esc_u 3 w)),
     (95, hex_part),
     (96, texts [[CHR 0x5C, CHR ''u'', CHR ''{'']]),
     (97, hex_escape esc_u (Suc 0)),
     (98, (\<lambda>w. hex_escape esc_x 0 w \<or> hex_escape esc_u 2 w)),
     (99, texts [[]])]"

definition lex_reach_10 :: "(TSStateId \<times> (code_point list \<Rightarrow> bool)) list" where
  "lex_reach_10 = [
     (100, texts [[]]),
     (101, texts [[]]),
     (102, texts [[]]),
     (103, texts []),
     (104, texts [''#'']),
     (105, texts [''#'']),
     (106, texts [''0'']),
     (107, digits),
     (108, hex_number)]"

definition lex_reach_11 :: "(TSStateId \<times> (code_point list \<Rightarrow> bool)) list" where
  "lex_reach_11 = [
     (109, fraction digits),
     (110, exponent (signed digits)),
     (111, led is_blank [CHR 0x22]),
     (112, led is_blank [CHR 0x22]),
     (113, led is_blank [CHR 0x27]),
     (114, led is_blank [CHR 0x27]),
     (115, led is_blank [CHR 0x22, CHR 0x22, CHR 0x22]),
     (116, led is_blank [CHR 0x27, CHR 0x27, CHR 0x27]),
     (117, texts [[CHR ''r'', CHR 0x22]]),
     (118, led is_blank ''$''),
     (119, texts [''$'']),
     (120, texts [[CHR ''r'', CHR 0x27]]),
     (121, texts [[CHR ''r'', CHR 0x22, CHR 0x22, CHR 0x22]]),
     (122, texts [[CHR ''r'', CHR 0x27, CHR 0x27, CHR 0x27]]),
     (123, texts [''{'']),
     (124, texts [''}'']),
     (125, sub_string_text),
     (126, (\<lambda>w. led is_blank [] w \<and> w \<noteq> [])),
     (127, (\<lambda>w. led is_blank [] w \<and> w \<noteq> [])),
     (128, (\<lambda>w. led is_blank [] w \<and> w \<noteq> [])),
     (129, led is_blank [CHR 0x5C]),
     (130, led is_blank ''/''),
     (131, (\<lambda>w. led is_blank [] w \<and> w \<noteq> [])),
     (132, texts [[CHR 0x5C]]),
     (133, escape_sequence),
     (134, octal_escape 2),
     (135, octal_escape (Suc 0)),
     (136, texts [''['']),
     (137, texts ['',''])]"

definition lex_reach_12 :: "(TSStateId \<times> (code_point list \<Rightarrow> bool)) list" where
  "lex_reach_12 = [
     (138, texts ['']'']),
     (139, texts ['':'']),
     (140, texts [''('']),
     (141, texts ['')'']),
     (142, texts [''='']),
     (143, texts [''='']),
     (144, texts [''='']),
     (145, texts [''='']),
     (146, texts [''='']),
     (147, texts [''+='']),
     (148, texts [''-='']),
     (149, texts [''*='']),
     (150, texts [''/='']),
     (151, texts [''%='']),
     (152, texts [''~/='']),
     (153, texts [''<<='']),
     (154, texts [''>>='']),
     (155, texts [''>>>='']),
     (156, texts [''&='']),
     (157, texts [''^='']),
     (158, texts [''|='']),
     (159, texts [''??='']),
     (160, texts [''??'']),
     (161, texts [''??'']),
     (162, texts [''?'']),
     (163, texts [''?'']),
     (164, texts [''?'']),
     (165, texts [''?'']),
     (166, texts [''?'']),
     (167, texts [''?'']),
     (168, texts [''?'']),
     (169, texts [''?'']),
     (170, texts [''?'']),
     (171, texts [''?'']),
     (172, texts [''!='', ''=='']),
     (173, texts [''<'']),
     (174, texts [''<'']),
     (175, texts [''<'']),
     (176, texts [''<'']),
     (177, texts [''<''])]"

definition lex_reach_13 :: "(TSStateId \<times> (code_point list \<Rightarrow> bool)) list" where
  "lex_reach_13 = [
     (178, texts [''>'']),
     (179, texts [''>'']),
     (180, texts [''>'']),
     (181, texts [''>'']),
     (182, texts [''<='']),
     (183, texts [''>='']),
     (184, texts [''|'']),
     (185, texts [''|'']),
     (186, texts [''^'']),
     (187, texts [''^'']),
     (188, texts [''&'']),
     (189, texts [''&'']),
     (190, texts [''<<'']),
     (191, texts [''<<'']),
     (192, texts [''>>'']),
     (193, texts [''>>'']),
     (194, texts [''>>>'']),
     (195, texts [''>>>'']),
     (196, texts [''+'', ''-'']),
     (197, texts [''+'']),
     (198, texts [''+'']),
     (199, texts [''-'']),
     (200, texts [''-'']),
     (201, texts [''+'']),
     (202, texts [''-'']),
     (203, texts [''*'']),
     (204, texts [''*'']),
     (205, texts [''/'']),
     (206, texts [''/'']),
     (207, texts [''%'']),
     (208, texts [''%'']),
     (209, texts [''~/'']),
     (210, texts [''~/'']),
     (211, texts [''++'', ''--'']),
     (212, texts [''...'']),
     (213, texts [''-'']),
     (214, texts [''-'']),
     (215, texts [''-''])]"

definition lex_reach_14 :: "(TSStateId \<times> (code_point list \<Rightarrow> bool)) list" where
  "lex_reach_14 = [
     (216, texts [''!'']),
     (217, texts [''!'']),
     (218, texts [''~'']),
     (219, texts [''~'']),
     (220, texts [''~'']),
     (221, texts [''as'']),
     (222, texts [''as'']),
     (223, texts [''as'']),
     (224, texts [''.'']),
     (225, texts [''.'']),
     (226, texts [''.'']),
     (227, texts [''.'']),
     (228, texts [''.'']),
     (229, texts [''?.'']),
     (230, texts [''?.'']),
     (231, texts [''..'']),
     (232, texts [''..'']),
     (233, texts [''?..'']),
     (234, texts ['';'']),
     (235, texts [''=>'']),
     (236, texts [''@'']),
     (237, texts [''=='']),
     (238, texts [''[]'']),
     (239, texts [''[]='']),
     (240, texts [''async'']),
     (241, texts [''async'']),
     (242, texts [''async*'']),
     (243, texts [''sync*'']),
     (244, texts [''#!'']),
     (245, led is_line_blank ''/''),
     (246, (\<lambda>w. led is_line_blank [] w \<and> w \<noteq> [])),
     (247, (\<lambda>w. line_text w \<and> w \<noteq> [])),
     (248, line_feeds),
     (249, texts [''part of'']),
     (250, texts [''&&''])]"

definition lex_reach_15 :: "(TSStateId \<times> (code_point list \<Rightarrow> bool)) list" where
  "lex_reach_15 = [
     (251, texts [''||'']),
     (252, texts [''part'']),
     (253, texts [''r'']),
     (254, texts [''sync'']),
     (255, texts [''p'']),
     (256, texts [''syn'']),
     (257, texts [''asyn'']),
     (258, texts [''sy'']),
     (259, texts [''asy'']),
     (260, texts [''pa'']),
     (261, texts [''a'']),
     (262, texts [''a'']),
     (263, texts [''a'']),
     (264, texts [''par'']),
     (265, texts [''s'']),
     (266, texts [''as'']),
     (267, ident)]"

definition lex_reach_16 :: "(TSStateId \<times> (code_point list \<Rightarrow> bool)) list" where
  "lex_reach_16 = [
     (268, escaped_ident),
     (269, led is_blank ''//''),
     (270, led is_blank ''//''),
     (271, led is_line_blank ''//''),
     (272, led is_line_blank ''//''),
     (273, (\<lambda>w. led is_line_blank ''//'' w \<and> no_slash_first w)),
     (274, (\<lambda>w. led is_line_blank ''/'' w \<and> no_slash_first w)),
     (275, (\<lambda>w. led is_line_blank [] w \<and> no_slash_first w \<and> w \<noteq> [])),
     (276, texts [[]]),
     (277, (\<lambda>w. line_text w \<and> no_slash_first w \<and> w \<noteq> [])),
     (278, led is_blank ''/*''),
     (279, led is_blank ''/*''),
     (280, led is_line_blank ''/*''),
     (281, led is_line_blank ''/*''),
     (282, (\<lambda>w. led is_line_blank ''/*'' w \<and> no_slash_first w)),
     (283, (\<lambda>w. no_close w \<and> ends_star w)),
     (284, led is_blank ''///''),
     (285, led is_blank ''///''),
     (286, led is_line_blank ''///''),
     (287, led is_line_blank ''///''),
     (288, (\<lambda>w. led is_line_blank ''///'' w \<and> no_slash_first w)),
     (289, led is_line_blank ''/''),
     (290, led is_line_blank []),
     (291, line_text)]"

definition lex_reach_table :: "(TSStateId \<times> (code_point list \<Rightarrow> bool)) list" where
  "lex_reach_table =
     lex_reach_1 @ lex_reach_2 @ lex_reach_3 @ lex_reach_4 @ lex_reach_5 @
     lex_reach_6 @ lex_reach_7 @ lex_reach_8 @ lex_reach_9 @ lex_reach_10 @
     lex_reach_11 @ lex_reach_12 @ lex_reach_13 @ lex_reach_14 @ lex_reach_15 @
     lex_reach_16"

definition lex_reach :: "TSStateId \<Rightarrow> code_point list \<Rightarrow> bool" where
  "lex_reach = text_of lex_reach_table"

lemma lex_reach_keys:
  "map fst lex_reach_1 = [0..<5]"
  "map fst lex_reach_2 = [5..<9]"
  "map fst lex_reach_3 = [9..<13]"
  "map fst lex_reach_4 = [13..<19]"
  "map fst lex_reach_5 = [19..<24]"
  "map fst lex_reach_6 = [24..<28]"
  "map fst lex_reach_7 = [28..<41]"
  "map fst lex_reach_8 = [41..<76]"
  "map fst lex_reach_9 = [76..<100]"
  "map fst lex_reach_10 = [100..<109]"
  "map fst lex_reach_11 = [109..<138]"
  "map fst lex_reach_12 = [138..<178]"
  "map fst lex_reach_13 = [178..<216]"
  "map fst lex_reach_14 = [216..<251]"
  "map fst lex_reach_15 = [251..<268]"
  "map fst lex_reach_16 = [268..<292]"
  by (simp add: lex_reach_1_def upt_from_0)
    (simp_all add: lex_reach_1_def lex_reach_2_def lex_reach_3_def lex_reach_4_def lex_reach_5_def
    lex_reach_6_def lex_reach_7_def lex_reach_8_def lex_reach_9_def lex_reach_10_def
    lex_reach_11_def lex_reach_12_def lex_reach_13_def lex_reach_14_def lex_reach_15_def
    lex_reach_16_def)

lemma lex_reach_keys_all: "map fst lex_reach_table = [0..<292]"
  by (simp add: lex_reach_table_def lex_reach_keys upt_join del: upt_rec_numeral)

lemmas lex_reach_eqs =
  text_of_all [OF lex_reach_def, unfolded lex_reach_keys_all, OF distinct_upt,
    unfolded lex_reach_table_def list_all_append
    lex_reach_1_def lex_reach_2_def lex_reach_3_def lex_reach_4_def lex_reach_5_def
    lex_reach_6_def lex_reach_7_def lex_reach_8_def lex_reach_9_def lex_reach_10_def
    lex_reach_11_def lex_reach_12_def lex_reach_13_def lex_reach_14_def lex_reach_15_def
    lex_reach_16_def, simplified]

lemmas lexeme_simps = lexeme_ok_def lex_reach_eqs dart_lexeme_eqs
  is_digit_def is_letter_def is_blank_def is_line_blank_def ident_start_def ident_char_def
  hex_digit_def escaped_char_def

subsection \<open>Every case keeps the description\<close>

lemma lexeme_cases_1: "list_all (\<lambda>(s, b). lexeme_ok lex_reach dart_lexeme 103 s b) ts_lex_cases_1"
  by (auto simp: lexeme_simps text_rules ts_lex_cases_1_def)

lemma lexeme_cases_2: "list_all (\<lambda>(s, b). lexeme_ok lex_reach dart_lexeme 103 s b) ts_lex_cases_2"
  by (simp add: lexeme_simps text_rules ts_lex_cases_2_def)

lemma lexeme_cases_3: "list_all (\<lambda>(s, b). lexeme_ok lex_reach dart_lexeme 103 s b) ts_lex_cases_3"
  by (simp add: lexeme_simps text_rules ts_lex_cases_3_def)

lemma lexeme_cases_4: "list_all (\<lambda>(s, b). lexeme_ok lex_reach dart_lexeme 103 s b) ts_lex_cases_4"
  by (simp add: lexeme_simps text_rules ts_lex_cases_4_def)

lemma lexeme_cases_5: "list_all (\<lambda>(s, b). lexeme_ok lex_reach dart_lexeme 103 s b) ts_lex_cases_5"
  by (simp add: lexeme_simps text_rules ts_lex_cases_5_def)

lemma lexeme_cases_6: "list_all (\<lambda>(s, b). lexeme_ok lex_reach dart_lexeme 103 s b) ts_lex_cases_6"
  by (simp add: lexeme_simps text_rules ts_lex_cases_6_def)

lemma lexeme_cases_7: "list_all (\<lambda>(s, b). lexeme_ok lex_reach dart_lexeme 103 s b) ts_lex_cases_7"
  by (simp add: lexeme_simps text_rules ts_lex_cases_7_def)

lemma lexeme_cases_8: "list_all (\<lambda>(s, b). lexeme_ok lex_reach dart_lexeme 103 s b) ts_lex_cases_8"
  by (simp add: lexeme_simps text_rules ts_lex_cases_8_def)

lemma lexeme_cases_9: "list_all (\<lambda>(s, b). lexeme_ok lex_reach dart_lexeme 103 s b) ts_lex_cases_9"
  by (simp add: lexeme_simps text_rules ts_lex_cases_9_def)

lemma lexeme_cases_10: "list_all (\<lambda>(s, b). lexeme_ok lex_reach dart_lexeme 103 s b) ts_lex_cases_10"
  by (simp add: lexeme_simps text_rules ts_lex_cases_10_def)

lemma lexeme_cases_11: "list_all (\<lambda>(s, b). lexeme_ok lex_reach dart_lexeme 103 s b) ts_lex_cases_11"
  by (simp add: lexeme_simps text_rules ts_lex_cases_11_def)

lemma lexeme_cases_12: "list_all (\<lambda>(s, b). lexeme_ok lex_reach dart_lexeme 103 s b) ts_lex_cases_12"
  by (simp add: lexeme_simps text_rules ts_lex_cases_12_def)

lemma lexeme_cases_13: "list_all (\<lambda>(s, b). lexeme_ok lex_reach dart_lexeme 103 s b) ts_lex_cases_13"
  by (simp add: lexeme_simps text_rules ts_lex_cases_13_def)

lemma lexeme_cases_14: "list_all (\<lambda>(s, b). lexeme_ok lex_reach dart_lexeme 103 s b) ts_lex_cases_14"
  by (auto simp: lexeme_simps text_rules ts_lex_cases_14_def)

lemma lexeme_cases_15: "list_all (\<lambda>(s, b). lexeme_ok lex_reach dart_lexeme 103 s b) ts_lex_cases_15"
  by (simp add: lexeme_simps text_rules ts_lex_cases_15_def)

lemma lexeme_cases_16: "list_all (\<lambda>(s, b). lexeme_ok lex_reach dart_lexeme 103 s b) ts_lex_cases_16"
  by (auto simp: lexeme_simps text_rules ts_lex_cases_16_def)

lemmas lexeme_cases =
  lexeme_cases_1 lexeme_cases_2 lexeme_cases_3 lexeme_cases_4 lexeme_cases_5 lexeme_cases_6
  lexeme_cases_7 lexeme_cases_8 lexeme_cases_9 lexeme_cases_10 lexeme_cases_11 lexeme_cases_12
  lexeme_cases_13 lexeme_cases_14 lexeme_cases_15 lexeme_cases_16

interpretation lxm: lexeme_switch ts_lex_switch lex_reach dart_lexeme 103
  unfolding ts_lex_switch_def
proof (rule lexeme_switchI)
  show "lex_switch (map_of ts_lex_cases)"
    using lx.lex_switch_axioms by (simp add: ts_lex_switch_def)
  show "list_all (\<lambda>(s, b). lexeme_ok lex_reach dart_lexeme 103 s b) ts_lex_cases"
    by (simp add: ts_lex_cases_def lexeme_cases)
  show "accept_of (map_of ts_lex_cases) 103 = Some ts_builtin_sym_end"
    by (simp add: accept_of_def lex_lookup(10) ts_lex_cases_10_def)
  show "map_of ts_lex_cases s \<noteq> None" if "lex_reach s w" for s w
    using that text_of_keys [of lex_reach_table s w] map_of_upt_keys [OF lex_reach_keys_all]
      map_of_upt_keys [OF lex_keys_all]
    by (auto simp: lex_reach_def)
qed

subsection \<open>The lexer function\<close>

text \<open>
  The states a lexer may be started in: those entered with no text read. \<open>token_of\<close> says what a
  successful run leaves behind: the text \<open>v\<close> of a token at the front of the text \<open>txt\<close> after the
  white space, described by the symbol, with the token's end marked right after it, or the end of
  the input.
\<close>

definition lex_start :: "TSStateId \<Rightarrow> bool" where
  "lex_start s = lex_reach s []"

definition token_of :: "TSSymbol \<Rightarrow> code_point list \<Rightarrow> code_point list option \<Rightarrow> bool" where
  "token_of sy txt m \<longleftrightarrow>
     (\<exists>v e. txt = v @ e \<and> m = Some e \<and> dart_lexeme sy v) \<or>
     sy = ts_builtin_sym_end \<and> txt = [] \<and> m = Some []"

lemma lex_start_switch: "lex_start s \<Longrightarrow> ts_lex_switch s \<noteq> None"
  using text_of_keys [of lex_reach_table s] map_of_upt_keys [OF lex_reach_keys_all]
    map_of_upt_keys [OF lex_keys_all]
  by (auto simp: lex_start_def lex_reach_def ts_lex_switch_def)

text \<open>The lexer run by the in-memory runtime.\<close>

interpretation buf_lx: lex_client buf_ops buf_valid buf_rest buf_from buf_mark ts_lex_switch
  by (rule lex_client.intro [OF buf.tslexer_axioms lx.lex_switch_axioms])

lemma ts_lex_word:
  assumes "tslexer ops valid rest start mark" and "valid l" and "start l = rest l"
    and "ts_lex_switch s \<noteq> None" and "lex_word ts_lex_switch (rest l) s (rest l) None = (st, tok)"
  shows "\<exists>l'. ts_lex ops s l = Some (accepted tok, l') \<and> valid l' \<and> start l' = st \<and> records mark l tok l'"
proof -
  have client: "lex_client ops valid rest start mark ts_lex_switch"
    by (rule lex_client.intro [OF assms(1) lx.lex_switch_axioms])
  from lex_client.lex_loop_word [OF client assms(2) _ assms(4), of l None st tok] assms(3,5)
  show ?thesis by (simp add: ts_lex_def records_def)
qed

lemma ts_lex_start:
  assumes "tslexer ops valid rest start mark" and "valid l" and "start l = rest l" and "lex_start s"
  shows "\<exists>r l' b. ts_lex ops s l = Some (r, l') \<and> rest l = b @ start l' \<and> list_all is_blank b \<and>
    (if r then token_of (result_symbol l') (start l') (mark l')
     else result_symbol l' = result_symbol l \<and> mark l' = mark l)"
proof -
  obtain st tok where w: "lex_word ts_lex_switch (rest l) s (rest l) None = (st, tok)"
    by (cases "lex_word ts_lex_switch (rest l) s (rest l) None")
  from assms(4) have "lex_reach s []" by (simp add: lex_start_def)
  from lxm.lex_word_start [OF this _ w] lxm.tok_ok_None
  obtain b where b: "list_all is_blank b" "rest l = b @ st" "lxm.tok_ok st tok" by blast
  from ts_lex_word [OF assms(1-3) lex_start_switch [OF assms(4)] w]
  obtain l' where l': "ts_lex ops s l = Some (accepted tok, l')" "start l' = st" "records mark l tok l'"
    by blast
  have "if accepted tok then token_of (result_symbol l') (start l') (mark l')
     else result_symbol l' = result_symbol l \<and> mark l' = mark l"
    using l'(2,3) b(3) by (cases tok) (auto simp: records_def lxm.tok_ok_def token_of_def)
  with l'(1,2) b(1,2) show ?thesis by blast
qed

end
