(* ===== verification/Dart_Modes.thy ===== *)
theory Dart_Modes
  imports Dart_Symbols
begin

text \<open>
  The table \<^verbatim>\<open>ts_lex_modes\<close> of \<^verbatim>\<open>parser.c\<close>: for every parse state the state the main lexer starts in
  and the row of \<^verbatim>\<open>ts_external_scanner_states\<close> that says which external tokens are valid there.
  The table is cut into blocks of 150 entries.
\<close>

record TSLexMode =
  lex_state :: nat
  external_lex_state :: nat

abbreviation (input) LM :: "nat \<Rightarrow> nat \<Rightarrow> TSLexMode" where
  "LM s e \<equiv> \<lparr>lex_state = s, external_lex_state = e\<rparr>"

text \<open>
  \<^verbatim>\<open>{(TSStateId)(-1)}\<close>: the 16-bit \<open>-1\<close>, which the runtime reads as ``no lookahead is needed''; the
  field that is not initialised is 0.
\<close>

abbreviation (input) NO_LEX_MODE :: TSLexMode where
  "NO_LEX_MODE \<equiv> \<lparr>lex_state = 65535, external_lex_state = 0\<rparr>"

subsection \<open>The table\<close>

definition ts_lex_modes_1 :: "(TSStateId \<times> TSLexMode) list" where
  "ts_lex_modes_1 = [
     (0, LM 0 1), (1, LM 100 2), (2, LM 101 2), (3, LM 101 2), (4, LM 101 2), (5, LM 101 2),
     (6, LM 101 2), (7, LM 101 2), (8, LM 101 2), (9, LM 101 2), (10, LM 101 2),
     (11, LM 101 2), (12, LM 101 2), (13, LM 101 2), (14, LM 101 2), (15, LM 101 2),
     (16, LM 101 2), (17, LM 101 2), (18, LM 101 2), (19, LM 101 2), (20, LM 101 2),
     (21, LM 101 2), (22, LM 101 2), (23, LM 101 2), (24, LM 101 2), (25, LM 101 2),
     (26, LM 101 2), (27, LM 101 2), (28, LM 101 2), (29, LM 101 2), (30, LM 101 2),
     (31, LM 101 2), (32, LM 101 2), (33, LM 101 2), (34, LM 101 2), (35, LM 101 2),
     (36, LM 101 2), (37, LM 101 2), (38, LM 101 2), (39, LM 101 2), (40, LM 101 2),
     (41, LM 101 2), (42, LM 101 2), (43, LM 4 2), (44, LM 4 2), (45, LM 4 2), (46, LM 4 2),
     (47, LM 4 2), (48, LM 101 2), (49, LM 101 2), (50, LM 101 2), (51, LM 4 2), (52, LM 4 2),
     (53, LM 4 2), (54, LM 4 2), (55, LM 4 2), (56, LM 4 2), (57, LM 101 2), (58, LM 101 2),
     (59, LM 101 2), (60, LM 101 2), (61, LM 4 2), (62, LM 4 2), (63, LM 101 2),
     (64, LM 101 2), (65, LM 101 2), (66, LM 101 2), (67, LM 101 2), (68, LM 101 2),
     (69, LM 101 2), (70, LM 101 2), (71, LM 101 2), (72, LM 101 2), (73, LM 101 2),
     (74, LM 101 2), (75, LM 101 2), (76, LM 101 2), (77, LM 101 2), (78, LM 101 2),
     (79, LM 101 2), (80, LM 101 2), (81, LM 101 2), (82, LM 101 2), (83, LM 101 2),
     (84, LM 101 2), (85, LM 101 2), (86, LM 101 2), (87, LM 101 2), (88, LM 101 2),
     (89, LM 101 2), (90, LM 101 2), (91, LM 101 2), (92, LM 101 2), (93, LM 101 2),
     (94, LM 101 2), (95, LM 101 2), (96, LM 101 2), (97, LM 101 2), (98, LM 101 2),
     (99, LM 101 2), (100, LM 101 2), (101, LM 101 2), (102, LM 101 2), (103, LM 101 2),
     (104, LM 101 2), (105, LM 101 2), (106, LM 101 2), (107, LM 101 2), (108, LM 101 2),
     (109, LM 101 2), (110, LM 101 2), (111, LM 101 2), (112, LM 101 2), (113, LM 101 2),
     (114, LM 101 2), (115, LM 101 2), (116, LM 101 2), (117, LM 101 2), (118, LM 101 2),
     (119, LM 101 2), (120, LM 101 2), (121, LM 101 2), (122, LM 101 2), (123, LM 101 2),
     (124, LM 101 2), (125, LM 101 2), (126, LM 101 2), (127, LM 101 2), (128, LM 101 2),
     (129, LM 101 2), (130, LM 101 2), (131, LM 101 2), (132, LM 101 2), (133, LM 101 2),
     (134, LM 101 2), (135, LM 101 2), (136, LM 101 2), (137, LM 101 2), (138, LM 101 2),
     (139, LM 101 2), (140, LM 101 2), (141, LM 101 2), (142, LM 101 2), (143, LM 101 2),
     (144, LM 101 2), (145, LM 101 2), (146, LM 101 2), (147, LM 101 2), (148, LM 101 2),
     (149, LM 101 2)]"

definition ts_lex_modes_2 :: "(TSStateId \<times> TSLexMode) list" where
  "ts_lex_modes_2 = [
     (150, LM 101 2), (151, LM 101 2), (152, LM 101 2), (153, LM 101 2), (154, LM 101 2),
     (155, LM 101 2), (156, LM 101 2), (157, LM 101 2), (158, LM 101 2), (159, LM 101 2),
     (160, LM 101 2), (161, LM 101 2), (162, LM 101 2), (163, LM 101 2), (164, LM 101 2),
     (165, LM 101 2), (166, LM 101 2), (167, LM 101 2), (168, LM 101 2), (169, LM 101 2),
     (170, LM 101 2), (171, LM 101 2), (172, LM 101 2), (173, LM 101 2), (174, LM 101 2),
     (175, LM 101 2), (176, LM 101 2), (177, LM 101 2), (178, LM 101 2), (179, LM 101 2),
     (180, LM 101 2), (181, LM 101 2), (182, LM 101 2), (183, LM 101 2), (184, LM 101 2),
     (185, LM 101 2), (186, LM 101 2), (187, LM 101 2), (188, LM 101 2), (189, LM 101 2),
     (190, LM 101 2), (191, LM 101 2), (192, LM 101 2), (193, LM 101 2), (194, LM 101 2),
     (195, LM 101 2), (196, LM 101 2), (197, LM 101 2), (198, LM 101 2), (199, LM 101 2),
     (200, LM 101 2), (201, LM 101 2), (202, LM 101 2), (203, LM 101 2), (204, LM 101 2),
     (205, LM 101 2), (206, LM 101 2), (207, LM 101 2), (208, LM 101 2), (209, LM 101 2),
     (210, LM 101 2), (211, LM 101 2), (212, LM 101 2), (213, LM 101 2), (214, LM 101 2),
     (215, LM 101 2), (216, LM 101 2), (217, LM 101 2), (218, LM 101 2), (219, LM 101 2),
     (220, LM 101 2), (221, LM 101 2), (222, LM 101 2), (223, LM 101 2), (224, LM 101 2),
     (225, LM 101 2), (226, LM 101 2), (227, LM 101 2), (228, LM 101 2), (229, LM 101 2),
     (230, LM 101 2), (231, LM 101 2), (232, LM 101 2), (233, LM 101 2), (234, LM 101 2),
     (235, LM 101 2), (236, LM 101 2), (237, LM 101 2), (238, LM 101 2), (239, LM 101 2),
     (240, LM 101 2), (241, LM 101 2), (242, LM 101 2), (243, LM 101 2), (244, LM 101 2),
     (245, LM 101 2), (246, LM 101 2), (247, LM 101 2), (248, LM 101 2), (249, LM 101 2),
     (250, LM 101 2), (251, LM 101 2), (252, LM 101 2), (253, LM 101 2), (254, LM 101 2),
     (255, LM 101 2), (256, LM 101 2), (257, LM 101 2), (258, LM 101 2), (259, LM 101 2),
     (260, LM 101 2), (261, LM 101 2), (262, LM 101 2), (263, LM 101 2), (264, LM 101 2),
     (265, LM 101 2), (266, LM 101 2), (267, LM 101 2), (268, LM 101 2), (269, LM 101 2),
     (270, LM 101 2), (271, LM 101 2), (272, LM 101 2), (273, LM 101 2), (274, LM 101 2),
     (275, LM 101 2), (276, LM 101 2), (277, LM 101 2), (278, LM 101 2), (279, LM 101 2),
     (280, LM 101 2), (281, LM 101 2), (282, LM 101 2), (283, LM 101 2), (284, LM 101 2),
     (285, LM 101 2), (286, LM 101 2), (287, LM 101 2), (288, LM 101 2), (289, LM 101 2),
     (290, LM 101 2), (291, LM 101 2), (292, LM 101 2), (293, LM 101 2), (294, LM 101 2),
     (295, LM 101 2), (296, LM 101 2), (297, LM 101 2), (298, LM 101 2), (299, LM 101 2)]"

definition ts_lex_modes_3 :: "(TSStateId \<times> TSLexMode) list" where
  "ts_lex_modes_3 = [
     (300, LM 101 2), (301, LM 101 2), (302, LM 101 2), (303, LM 101 2), (304, LM 101 2),
     (305, LM 101 2), (306, LM 101 2), (307, LM 101 2), (308, LM 101 2), (309, LM 101 2),
     (310, LM 101 2), (311, LM 101 2), (312, LM 101 2), (313, LM 101 2), (314, LM 101 2),
     (315, LM 101 2), (316, LM 101 2), (317, LM 101 2), (318, LM 101 2), (319, LM 101 2),
     (320, LM 101 2), (321, LM 101 2), (322, LM 101 2), (323, LM 101 2), (324, LM 101 2),
     (325, LM 101 2), (326, LM 101 2), (327, LM 101 2), (328, LM 101 2), (329, LM 101 2),
     (330, LM 101 2), (331, LM 101 2), (332, LM 101 2), (333, LM 101 2), (334, LM 101 2),
     (335, LM 101 2), (336, LM 101 2), (337, LM 101 2), (338, LM 101 2), (339, LM 101 2),
     (340, LM 101 2), (341, LM 101 2), (342, LM 101 2), (343, LM 101 2), (344, LM 101 2),
     (345, LM 101 2), (346, LM 101 2), (347, LM 101 2), (348, LM 101 2), (349, LM 101 2),
     (350, LM 101 2), (351, LM 101 2), (352, LM 101 2), (353, LM 101 2), (354, LM 101 2),
     (355, LM 101 2), (356, LM 101 2), (357, LM 101 2), (358, LM 101 2), (359, LM 101 2),
     (360, LM 101 2), (361, LM 101 2), (362, LM 101 2), (363, LM 101 2), (364, LM 101 2),
     (365, LM 101 2), (366, LM 101 2), (367, LM 101 2), (368, LM 101 2), (369, LM 101 2),
     (370, LM 101 2), (371, LM 101 2), (372, LM 101 2), (373, LM 101 2), (374, LM 25 2),
     (375, LM 4 2), (376, LM 25 2), (377, LM 25 2), (378, LM 3 2), (379, LM 25 2),
     (380, LM 25 2), (381, LM 25 2), (382, LM 3 2), (383, LM 25 2), (384, LM 25 2),
     (385, LM 25 2), (386, LM 25 2), (387, LM 25 2), (388, LM 25 2), (389, LM 25 2),
     (390, LM 25 2), (391, LM 25 2), (392, LM 25 2), (393, LM 25 2), (394, LM 25 2),
     (395, LM 25 2), (396, LM 25 2), (397, LM 25 2), (398, LM 25 2), (399, LM 25 2),
     (400, LM 25 2), (401, LM 25 2), (402, LM 25 2), (403, LM 25 2), (404, LM 25 2),
     (405, LM 25 2), (406, LM 25 2), (407, LM 25 2), (408, LM 25 2), (409, LM 25 2),
     (410, LM 101 2), (411, LM 101 2), (412, LM 25 2), (413, LM 101 2), (414, LM 101 2),
     (415, LM 25 2), (416, LM 25 2), (417, LM 101 2), (418, LM 25 2), (419, LM 101 2),
     (420, LM 101 2), (421, LM 101 2), (422, LM 25 2), (423, LM 25 2), (424, LM 101 2),
     (425, LM 101 2), (426, LM 101 2), (427, LM 101 2), (428, LM 101 2), (429, LM 101 2),
     (430, LM 101 2), (431, LM 101 2), (432, LM 101 2), (433, LM 101 2), (434, LM 101 2),
     (435, LM 100 2), (436, LM 25 2), (437, LM 25 2), (438, LM 100 2), (439, LM 100 2),
     (440, LM 100 2), (441, LM 100 2), (442, LM 100 2), (443, LM 102 2), (444, LM 102 2),
     (445, LM 101 2), (446, LM 101 2), (447, LM 101 2), (448, LM 101 2), (449, LM 101 2)]"

definition ts_lex_modes_4 :: "(TSStateId \<times> TSLexMode) list" where
  "ts_lex_modes_4 = [
     (450, LM 100 2), (451, LM 100 2), (452, LM 100 2), (453, LM 10 2), (454, LM 100 2),
     (455, LM 10 2), (456, LM 101 2), (457, LM 101 2), (458, LM 101 2), (459, LM 101 2),
     (460, LM 101 2), (461, LM 101 2), (462, LM 100 2), (463, LM 100 2), (464, LM 101 2),
     (465, LM 100 2), (466, LM 12 2), (467, LM 12 2), (468, LM 100 2), (469, LM 100 2),
     (470, LM 101 2), (471, LM 10 2), (472, LM 10 2), (473, LM 6 2), (474, LM 6 2),
     (475, LM 101 2), (476, LM 101 2), (477, LM 101 2), (478, LM 101 2), (479, LM 101 2),
     (480, LM 101 2), (481, LM 6 2), (482, LM 101 2), (483, LM 10 2), (484, LM 101 2),
     (485, LM 101 2), (486, LM 101 2), (487, LM 12 2), (488, LM 101 2), (489, LM 9 2),
     (490, LM 12 2), (491, LM 101 2), (492, LM 101 2), (493, LM 101 2), (494, LM 6 2),
     (495, LM 6 2), (496, LM 10 2), (497, LM 10 2), (498, LM 6 2), (499, LM 10 2),
     (500, LM 6 2), (501, LM 6 2), (502, LM 6 2), (503, LM 6 2), (504, LM 6 2), (505, LM 6 2),
     (506, LM 6 2), (507, LM 6 2), (508, LM 7 2), (509, LM 12 2), (510, LM 6 2),
     (511, LM 101 2), (512, LM 101 2), (513, LM 9 2), (514, LM 9 2), (515, LM 9 2),
     (516, LM 9 2), (517, LM 9 2), (518, LM 101 2), (519, LM 101 2), (520, LM 101 2),
     (521, LM 9 2), (522, LM 101 2), (523, LM 101 2), (524, LM 101 2), (525, LM 101 2),
     (526, LM 101 2), (527, LM 101 2), (528, LM 101 2), (529, LM 101 2), (530, LM 101 2),
     (531, LM 101 2), (532, LM 9 2), (533, LM 101 2), (534, LM 101 2), (535, LM 101 2),
     (536, LM 101 2), (537, LM 101 2), (538, LM 101 2), (539, LM 101 2), (540, LM 101 2),
     (541, LM 101 2), (542, LM 101 2), (543, LM 101 2), (544, LM 101 2), (545, LM 101 2),
     (546, LM 101 2), (547, LM 101 2), (548, LM 101 2), (549, LM 101 2), (550, LM 100 2),
     (551, LM 101 2), (552, LM 9 2), (553, LM 7 2), (554, LM 7 2), (555, LM 7 2),
     (556, LM 101 2), (557, LM 7 2), (558, LM 7 2), (559, LM 7 2), (560, LM 100 2),
     (561, LM 12 2), (562, LM 7 2), (563, LM 9 2), (564, LM 7 2), (565, LM 9 2),
     (566, LM 12 2), (567, LM 9 2), (568, LM 9 2), (569, LM 7 2), (570, LM 9 2),
     (571, LM 102 2), (572, LM 7 2), (573, LM 12 2), (574, LM 7 2), (575, LM 9 2),
     (576, LM 9 2), (577, LM 101 2), (578, LM 10 2), (579, LM 10 2), (580, LM 10 2),
     (581, LM 10 2), (582, LM 10 2), (583, LM 10 2), (584, LM 10 2), (585, LM 10 2),
     (586, LM 101 2), (587, LM 10 2), (588, LM 101 2), (589, LM 101 2), (590, LM 101 2),
     (591, LM 10 2), (592, LM 7 2), (593, LM 101 2), (594, LM 10 2), (595, LM 7 2),
     (596, LM 101 2), (597, LM 101 2), (598, LM 101 2), (599, LM 101 2)]"

definition ts_lex_modes_5 :: "(TSStateId \<times> TSLexMode) list" where
  "ts_lex_modes_5 = [
     (600, LM 10 2), (601, LM 101 2), (602, LM 10 2), (603, LM 101 2), (604, LM 11 2),
     (605, LM 11 2), (606, LM 101 2), (607, LM 11 2), (608, LM 6 2), (609, LM 5 2),
     (610, LM 5 2), (611, LM 11 2), (612, LM 11 2), (613, LM 6 2), (614, LM 11 2),
     (615, LM 6 2), (616, LM 6 2), (617, LM 6 2), (618, LM 9 2), (619, LM 6 2),
     (620, LM 11 2), (621, LM 11 2), (622, LM 11 2), (623, LM 11 2), (624, LM 6 2),
     (625, LM 6 2), (626, LM 6 2), (627, LM 6 2), (628, LM 6 2), (629, LM 9 2), (630, LM 9 2),
     (631, LM 6 2), (632, LM 6 2), (633, LM 6 2), (634, LM 6 2), (635, LM 6 2), (636, LM 6 2),
     (637, LM 12 2), (638, LM 12 2), (639, LM 12 2), (640, LM 8 2), (641, LM 12 2),
     (642, LM 9 2), (643, LM 6 2), (644, LM 12 2), (645, LM 9 2), (646, LM 12 2),
     (647, LM 12 2), (648, LM 6 2), (649, LM 12 2), (650, LM 12 2), (651, LM 12 2),
     (652, LM 12 2), (653, LM 12 2), (654, LM 6 2), (655, LM 9 2), (656, LM 9 2),
     (657, LM 12 2), (658, LM 9 2), (659, LM 6 2), (660, LM 27 2), (661, LM 8 2),
     (662, LM 8 2), (663, LM 6 2), (664, LM 6 2), (665, LM 8 2), (666, LM 8 2),
     (667, LM 100 2), (668, LM 6 2), (669, LM 6 2), (670, LM 6 2), (671, LM 8 2),
     (672, LM 6 2), (673, LM 8 2), (674, LM 6 2), (675, LM 8 2), (676, LM 8 2),
     (677, LM 101 2), (678, LM 9 2), (679, LM 6 2), (680, LM 100 2), (681, LM 9 2),
     (682, LM 6 2), (683, LM 27 2), (684, LM 7 2), (685, LM 101 2), (686, LM 27 2),
     (687, LM 101 2), (688, LM 27 2), (689, LM 27 2), (690, LM 7 2), (691, LM 7 2),
     (692, LM 27 2), (693, LM 28 2), (694, LM 27 2), (695, LM 27 2), (696, LM 101 2),
     (697, LM 27 2), (698, LM 27 2), (699, LM 7 2), (700, LM 27 2), (701, LM 7 2),
     (702, LM 28 2), (703, LM 7 2), (704, LM 27 2), (705, LM 7 2), (706, LM 7 2),
     (707, LM 7 2), (708, LM 7 2), (709, LM 101 2), (710, LM 7 2), (711, LM 7 2),
     (712, LM 7 2), (713, LM 28 2), (714, LM 28 2), (715, LM 28 2), (716, LM 5 2),
     (717, LM 5 2), (718, LM 28 2), (719, LM 5 2), (720, LM 28 2), (721, LM 28 2),
     (722, LM 6 2), (723, LM 28 2), (724, LM 28 2), (725, LM 28 2), (726, LM 28 2),
     (727, LM 28 2), (728, LM 5 2), (729, LM 7 2), (730, LM 7 2), (731, LM 7 2),
     (732, LM 7 2), (733, LM 7 2), (734, LM 7 2), (735, LM 7 2), (736, LM 7 2), (737, LM 7 2),
     (738, LM 7 2), (739, LM 7 2), (740, LM 7 2), (741, LM 5 2), (742, LM 5 2), (743, LM 7 2),
     (744, LM 5 2), (745, LM 7 2), (746, LM 7 2), (747, LM 7 2), (748, LM 5 2),
     (749, LM 5 2)]"

definition ts_lex_modes_6 :: "(TSStateId \<times> TSLexMode) list" where
  "ts_lex_modes_6 = [
     (750, LM 7 2), (751, LM 101 2), (752, LM 6 2), (753, LM 26 2), (754, LM 26 2),
     (755, LM 26 2), (756, LM 6 2), (757, LM 6 2), (758, LM 6 2), (759, LM 23 2),
     (760, LM 26 2), (761, LM 6 2), (762, LM 26 2), (763, LM 26 2), (764, LM 101 2),
     (765, LM 26 2), (766, LM 6 2), (767, LM 6 2), (768, LM 6 2), (769, LM 26 2),
     (770, LM 26 2), (771, LM 26 2), (772, LM 6 2), (773, LM 26 2), (774, LM 6 2),
     (775, LM 26 2), (776, LM 6 2), (777, LM 6 2), (778, LM 6 2), (779, LM 6 2),
     (780, LM 6 2), (781, LM 23 2), (782, LM 6 2), (783, LM 101 2), (784, LM 6 2),
     (785, LM 27 2), (786, LM 101 2), (787, LM 6 2), (788, LM 101 2), (789, LM 6 2),
     (790, LM 27 2), (791, LM 6 2), (792, LM 6 2), (793, LM 6 2), (794, LM 5 2),
     (795, LM 6 2), (796, LM 5 2), (797, LM 6 2), (798, LM 5 2), (799, LM 5 2),
     (800, LM 101 2), (801, LM 6 2), (802, LM 5 2), (803, LM 5 2), (804, LM 5 2),
     (805, LM 6 2), (806, LM 5 2), (807, LM 5 2), (808, LM 5 2), (809, LM 5 2), (810, LM 5 2),
     (811, LM 5 2), (812, LM 5 2), (813, LM 5 2), (814, LM 5 2), (815, LM 5 2), (816, LM 6 2),
     (817, LM 6 2), (818, LM 6 2), (819, LM 6 2), (820, LM 6 2), (821, LM 6 2), (822, LM 6 2),
     (823, LM 22 2), (824, LM 6 2), (825, LM 101 2), (826, LM 101 2), (827, LM 6 2),
     (828, LM 6 2), (829, LM 6 2), (830, LM 22 2), (831, LM 101 2), (832, LM 14 2),
     (833, LM 6 2), (834, LM 6 2), (835, LM 6 2), (836, LM 14 2), (837, LM 101 2),
     (838, LM 6 2), (839, LM 6 2), (840, LM 6 2), (841, LM 6 2), (842, LM 6 2), (843, LM 7 2),
     (844, LM 6 2), (845, LM 6 2), (846, LM 7 2), (847, LM 6 2), (848, LM 6 2), (849, LM 6 2),
     (850, LM 14 2), (851, LM 7 2), (852, LM 6 2), (853, LM 6 2), (854, LM 6 2),
     (855, LM 6 2), (856, LM 6 2), (857, LM 6 2), (858, LM 14 2), (859, LM 14 2),
     (860, LM 6 2), (861, LM 6 2), (862, LM 6 2), (863, LM 6 2), (864, LM 6 2), (865, LM 6 2),
     (866, LM 6 2), (867, LM 7 2), (868, LM 6 2), (869, LM 6 2), (870, LM 6 2),
     (871, LM 14 2), (872, LM 6 2), (873, LM 14 2), (874, LM 22 2), (875, LM 14 2),
     (876, LM 14 2), (877, LM 6 2), (878, LM 7 2), (879, LM 6 2), (880, LM 6 2),
     (881, LM 6 2), (882, LM 6 2), (883, LM 6 2), (884, LM 6 2), (885, LM 6 2), (886, LM 6 2),
     (887, LM 6 2), (888, LM 6 2), (889, LM 6 2), (890, LM 101 2), (891, LM 6 2),
     (892, LM 6 2), (893, LM 6 2), (894, LM 6 2), (895, LM 6 2), (896, LM 6 2), (897, LM 6 2),
     (898, LM 6 2), (899, LM 6 2)]"

definition ts_lex_modes_7 :: "(TSStateId \<times> TSLexMode) list" where
  "ts_lex_modes_7 = [
     (900, LM 6 2), (901, LM 6 2), (902, LM 7 2), (903, LM 6 2), (904, LM 6 2), (905, LM 6 2),
     (906, LM 6 2), (907, LM 6 2), (908, LM 6 2), (909, LM 6 2), (910, LM 101 2),
     (911, LM 6 2), (912, LM 6 2), (913, LM 6 2), (914, LM 6 2), (915, LM 6 2), (916, LM 6 2),
     (917, LM 6 2), (918, LM 6 2), (919, LM 101 2), (920, LM 6 2), (921, LM 6 2),
     (922, LM 6 2), (923, LM 6 2), (924, LM 6 2), (925, LM 6 2), (926, LM 6 2), (927, LM 6 2),
     (928, LM 7 2), (929, LM 7 2), (930, LM 7 2), (931, LM 101 2), (932, LM 6 2),
     (933, LM 7 2), (934, LM 6 2), (935, LM 6 2), (936, LM 7 2), (937, LM 6 2), (938, LM 6 2),
     (939, LM 6 2), (940, LM 6 2), (941, LM 6 2), (942, LM 6 2), (943, LM 6 2), (944, LM 6 2),
     (945, LM 6 2), (946, LM 6 2), (947, LM 6 2), (948, LM 6 2), (949, LM 6 2), (950, LM 6 2),
     (951, LM 6 2), (952, LM 6 2), (953, LM 6 2), (954, LM 6 2), (955, LM 6 2), (956, LM 6 2),
     (957, LM 6 2), (958, LM 6 2), (959, LM 6 2), (960, LM 6 2), (961, LM 7 2), (962, LM 6 2),
     (963, LM 6 2), (964, LM 6 2), (965, LM 22 2), (966, LM 6 2), (967, LM 6 2),
     (968, LM 6 2), (969, LM 6 2), (970, LM 6 2), (971, LM 6 2), (972, LM 7 2), (973, LM 6 2),
     (974, LM 6 2), (975, LM 6 2), (976, LM 6 2), (977, LM 6 2), (978, LM 7 2), (979, LM 6 2),
     (980, LM 6 2), (981, LM 6 2), (982, LM 6 2), (983, LM 22 2), (984, LM 6 2),
     (985, LM 6 2), (986, LM 6 2), (987, LM 7 2), (988, LM 6 2), (989, LM 6 2), (990, LM 6 2),
     (991, LM 6 2), (992, LM 6 2), (993, LM 6 2), (994, LM 6 2), (995, LM 6 2), (996, LM 6 2),
     (997, LM 22 2), (998, LM 6 2), (999, LM 6 2), (1000, LM 6 2), (1001, LM 6 2),
     (1002, LM 6 2), (1003, LM 6 2), (1004, LM 15 2), (1005, LM 7 2), (1006, LM 7 2),
     (1007, LM 6 2), (1008, LM 7 2), (1009, LM 6 2), (1010, LM 7 2), (1011, LM 7 2),
     (1012, LM 7 2), (1013, LM 7 2), (1014, LM 7 2), (1015, LM 7 2), (1016, LM 7 2),
     (1017, LM 7 2), (1018, LM 6 2), (1019, LM 7 2), (1020, LM 6 2), (1021, LM 7 2),
     (1022, LM 7 2), (1023, LM 7 2), (1024, LM 7 2), (1025, LM 7 2), (1026, LM 7 2),
     (1027, LM 15 2), (1028, LM 15 2), (1029, LM 7 2), (1030, LM 15 2), (1031, LM 7 2),
     (1032, LM 7 2), (1033, LM 7 2), (1034, LM 15 2), (1035, LM 7 2), (1036, LM 15 2),
     (1037, LM 7 2), (1038, LM 7 2), (1039, LM 7 2), (1040, LM 7 2), (1041, LM 7 2),
     (1042, LM 7 2), (1043, LM 7 2), (1044, LM 7 2), (1045, LM 7 2), (1046, LM 7 2),
     (1047, LM 7 2), (1048, LM 7 2), (1049, LM 7 2)]"

definition ts_lex_modes_8 :: "(TSStateId \<times> TSLexMode) list" where
  "ts_lex_modes_8 = [
     (1050, LM 100 2), (1051, LM 7 2), (1052, LM 15 2), (1053, LM 7 2), (1054, LM 7 2),
     (1055, LM 7 2), (1056, LM 7 2), (1057, LM 15 2), (1058, LM 7 2), (1059, LM 101 2),
     (1060, LM 7 2), (1061, LM 7 2), (1062, LM 7 2), (1063, LM 7 2), (1064, LM 101 2),
     (1065, LM 7 2), (1066, LM 7 2), (1067, LM 7 2), (1068, LM 15 2), (1069, LM 23 2),
     (1070, LM 7 2), (1071, LM 7 2), (1072, LM 7 2), (1073, LM 7 2), (1074, LM 23 2),
     (1075, LM 7 2), (1076, LM 7 2), (1077, LM 101 2), (1078, LM 7 2), (1079, LM 7 2),
     (1080, LM 7 2), (1081, LM 7 2), (1082, LM 7 2), (1083, LM 7 2), (1084, LM 7 2),
     (1085, LM 7 2), (1086, LM 13 2), (1087, LM 7 2), (1088, LM 22 2), (1089, LM 7 2),
     (1090, LM 7 2), (1091, LM 7 2), (1092, LM 100 2), (1093, LM 7 2), (1094, LM 7 2),
     (1095, LM 7 2), (1096, LM 7 2), (1097, LM 7 2), (1098, LM 7 2), (1099, LM 7 2),
     (1100, LM 7 2), (1101, LM 7 2), (1102, LM 22 2), (1103, LM 27 2), (1104, LM 7 2),
     (1105, LM 7 2), (1106, LM 7 2), (1107, LM 7 2), (1108, LM 7 2), (1109, LM 22 2),
     (1110, LM 7 2), (1111, LM 7 2), (1112, LM 7 2), (1113, LM 7 2), (1114, LM 7 2),
     (1115, LM 7 2), (1116, LM 7 2), (1117, LM 7 2), (1118, LM 7 2), (1119, LM 7 2),
     (1120, LM 7 2), (1121, LM 27 2), (1122, LM 22 2), (1123, LM 7 2), (1124, LM 22 2),
     (1125, LM 7 2), (1126, LM 22 2), (1127, LM 7 2), (1128, LM 7 2), (1129, LM 7 2),
     (1130, LM 7 2), (1131, LM 7 2), (1132, LM 7 2), (1133, LM 7 2), (1134, LM 22 2),
     (1135, LM 7 2), (1136, LM 22 2), (1137, LM 7 2), (1138, LM 22 2), (1139, LM 7 2),
     (1140, LM 7 2), (1141, LM 22 2), (1142, LM 7 2), (1143, LM 7 2), (1144, LM 7 2),
     (1145, LM 22 2), (1146, LM 7 2), (1147, LM 27 2), (1148, LM 7 2), (1149, LM 7 2),
     (1150, LM 7 2), (1151, LM 7 2), (1152, LM 7 2), (1153, LM 7 2), (1154, LM 7 2),
     (1155, LM 22 2), (1156, LM 7 2), (1157, LM 7 2), (1158, LM 7 2), (1159, LM 7 2),
     (1160, LM 22 2), (1161, LM 7 2), (1162, LM 7 2), (1163, LM 7 2), (1164, LM 7 2),
     (1165, LM 7 2), (1166, LM 7 2), (1167, LM 7 2), (1168, LM 7 2), (1169, LM 7 2),
     (1170, LM 7 2), (1171, LM 7 2), (1172, LM 7 2), (1173, LM 7 2), (1174, LM 7 2),
     (1175, LM 7 2), (1176, LM 7 2), (1177, LM 27 2), (1178, LM 7 2), (1179, LM 7 2),
     (1180, LM 7 2), (1181, LM 7 2), (1182, LM 7 2), (1183, LM 7 2), (1184, LM 7 2),
     (1185, LM 100 2), (1186, LM 7 2), (1187, LM 7 2), (1188, LM 7 2), (1189, LM 7 2),
     (1190, LM 7 2), (1191, LM 7 2), (1192, LM 7 2), (1193, LM 7 2), (1194, LM 7 2),
     (1195, LM 7 2), (1196, LM 13 2), (1197, LM 13 2), (1198, LM 22 2), (1199, LM 22 2)]"

definition ts_lex_modes_9 :: "(TSStateId \<times> TSLexMode) list" where
  "ts_lex_modes_9 = [
     (1200, LM 6 2), (1201, LM 5 2), (1202, LM 5 2), (1203, LM 6 2), (1204, LM 23 2),
     (1205, LM 13 2), (1206, LM 38 2), (1207, LM 5 2), (1208, LM 13 2), (1209, LM 13 2),
     (1210, LM 13 2), (1211, LM 13 2), (1212, LM 6 2), (1213, LM 6 2), (1214, LM 6 2),
     (1215, LM 23 2), (1216, LM 13 2), (1217, LM 102 2), (1218, LM 5 2), (1219, LM 5 2),
     (1220, LM 5 2), (1221, LM 5 2), (1222, LM 5 2), (1223, LM 5 2), (1224, LM 5 2),
     (1225, LM 5 2), (1226, LM 5 2), (1227, LM 5 2), (1228, LM 5 2), (1229, LM 5 2),
     (1230, LM 5 2), (1231, LM 5 2), (1232, LM 5 2), (1233, LM 101 2), (1234, LM 5 2),
     (1235, LM 28 2), (1236, LM 5 2), (1237, LM 5 2), (1238, LM 6 2), (1239, LM 5 2),
     (1240, LM 5 2), (1241, LM 6 2), (1242, LM 5 2), (1243, LM 5 2), (1244, LM 5 2),
     (1245, LM 6 2), (1246, LM 5 2), (1247, LM 5 2), (1248, LM 5 2), (1249, LM 6 2),
     (1250, LM 5 2), (1251, LM 28 2), (1252, LM 5 2), (1253, LM 5 2), (1254, LM 6 2),
     (1255, LM 5 2), (1256, LM 5 2), (1257, LM 5 2), (1258, LM 5 2), (1259, LM 5 2),
     (1260, LM 28 2), (1261, LM 5 2), (1262, LM 5 2), (1263, LM 5 2), (1264, LM 5 2),
     (1265, LM 6 2), (1266, LM 6 2), (1267, LM 5 2), (1268, LM 5 2), (1269, LM 5 2),
     (1270, LM 5 2), (1271, LM 5 2), (1272, LM 5 2), (1273, LM 5 2), (1274, LM 5 2),
     (1275, LM 5 2), (1276, LM 5 2), (1277, LM 5 2), (1278, LM 5 2), (1279, LM 5 2),
     (1280, LM 5 2), (1281, LM 5 2), (1282, LM 5 2), (1283, LM 6 2), (1284, LM 27 2),
     (1285, LM 5 2), (1286, LM 5 2), (1287, LM 5 2), (1288, LM 5 2), (1289, LM 5 2),
     (1290, LM 5 2), (1291, LM 5 2), (1292, LM 5 2), (1293, LM 27 2), (1294, LM 5 2),
     (1295, LM 5 2), (1296, LM 5 2), (1297, LM 6 2), (1298, LM 5 2), (1299, LM 6 2),
     (1300, LM 6 2), (1301, LM 27 2), (1302, LM 27 2), (1303, LM 27 2), (1304, LM 6 2),
     (1305, LM 27 2), (1306, LM 27 2), (1307, LM 27 2), (1308, LM 101 2), (1309, LM 38 2),
     (1310, LM 27 2), (1311, LM 27 2), (1312, LM 27 2), (1313, LM 27 2), (1314, LM 101 2),
     (1315, LM 27 2), (1316, LM 27 2), (1317, LM 27 2), (1318, LM 27 2), (1319, LM 27 2),
     (1320, LM 27 2), (1321, LM 26 2), (1322, LM 6 2), (1323, LM 6 2), (1324, LM 6 2),
     (1325, LM 27 2), (1326, LM 101 2), (1327, LM 101 2), (1328, LM 6 2), (1329, LM 26 2),
     (1330, LM 27 2), (1331, LM 28 2), (1332, LM 26 2), (1333, LM 6 2), (1334, LM 27 2),
     (1335, LM 6 2), (1336, LM 28 2), (1337, LM 6 2), (1338, LM 6 2), (1339, LM 6 2),
     (1340, LM 6 2), (1341, LM 27 2), (1342, LM 6 2), (1343, LM 6 2), (1344, LM 6 2),
     (1345, LM 6 2), (1346, LM 6 2), (1347, LM 6 2), (1348, LM 6 2), (1349, LM 27 2)]"

definition ts_lex_modes_10 :: "(TSStateId \<times> TSLexMode) list" where
  "ts_lex_modes_10 = [
     (1350, LM 28 2), (1351, LM 28 2), (1352, LM 28 2), (1353, LM 28 2), (1354, LM 28 2),
     (1355, LM 23 2), (1356, LM 27 2), (1357, LM 101 2), (1358, LM 27 2), (1359, LM 101 2),
     (1360, LM 27 2), (1361, LM 101 2), (1362, LM 28 2), (1363, LM 28 2), (1364, LM 27 2),
     (1365, LM 23 2), (1366, LM 28 2), (1367, LM 27 2), (1368, LM 27 2), (1369, LM 27 2),
     (1370, LM 101 2), (1371, LM 100 2), (1372, LM 101 2), (1373, LM 28 2), (1374, LM 101 2),
     (1375, LM 27 2), (1376, LM 101 2), (1377, LM 27 2), (1378, LM 28 2), (1379, LM 28 2),
     (1380, LM 28 2), (1381, LM 28 2), (1382, LM 28 2), (1383, LM 27 2), (1384, LM 27 2),
     (1385, LM 101 2), (1386, LM 27 2), (1387, LM 101 2), (1388, LM 101 2), (1389, LM 28 2),
     (1390, LM 28 2), (1391, LM 28 2), (1392, LM 27 2), (1393, LM 27 2), (1394, LM 101 2),
     (1395, LM 101 2), (1396, LM 27 2), (1397, LM 101 2), (1398, LM 27 2), (1399, LM 101 2),
     (1400, LM 27 2), (1401, LM 101 2), (1402, LM 101 2), (1403, LM 27 2), (1404, LM 25 2),
     (1405, LM 27 2), (1406, LM 27 2), (1407, LM 27 2), (1408, LM 27 2), (1409, LM 27 2),
     (1410, LM 27 2), (1411, LM 27 2), (1412, LM 101 2), (1413, LM 27 2), (1414, LM 27 2),
     (1415, LM 101 2), (1416, LM 101 2), (1417, LM 27 2), (1418, LM 28 2), (1419, LM 27 2),
     (1420, LM 100 2), (1421, LM 27 2), (1422, LM 26 2), (1423, LM 27 2), (1424, LM 27 2),
     (1425, LM 101 2), (1426, LM 26 2), (1427, LM 27 2), (1428, LM 27 2), (1429, LM 27 2),
     (1430, LM 27 2), (1431, LM 28 2), (1432, LM 27 2), (1433, LM 27 2), (1434, LM 25 2),
     (1435, LM 27 2), (1436, LM 27 2), (1437, LM 27 2), (1438, LM 28 2), (1439, LM 27 2),
     (1440, LM 27 2), (1441, LM 27 2), (1442, LM 27 2), (1443, LM 28 2), (1444, LM 25 2),
     (1445, LM 27 2), (1446, LM 27 2), (1447, LM 27 2), (1448, LM 27 2), (1449, LM 27 2),
     (1450, LM 101 2), (1451, LM 101 2), (1452, LM 26 2), (1453, LM 27 2), (1454, LM 100 2),
     (1455, LM 26 2), (1456, LM 28 2), (1457, LM 28 2), (1458, LM 28 2), (1459, LM 28 2),
     (1460, LM 26 2), (1461, LM 28 2), (1462, LM 26 2), (1463, LM 38 2), (1464, LM 28 2),
     (1465, LM 28 2), (1466, LM 28 2), (1467, LM 26 2), (1468, LM 26 2), (1469, LM 27 2),
     (1470, LM 19 2), (1471, LM 26 2), (1472, LM 26 2), (1473, LM 100 2), (1474, LM 100 2),
     (1475, LM 19 2), (1476, LM 28 2), (1477, LM 27 2), (1478, LM 23 2), (1479, LM 100 2),
     (1480, LM 26 2), (1481, LM 26 2), (1482, LM 26 2), (1483, LM 26 2), (1484, LM 27 2),
     (1485, LM 27 2), (1486, LM 28 2), (1487, LM 26 2), (1488, LM 26 2), (1489, LM 28 2),
     (1490, LM 28 2), (1491, LM 28 2), (1492, LM 28 2), (1493, LM 27 2), (1494, LM 28 2),
     (1495, LM 26 2), (1496, LM 26 2), (1497, LM 27 2), (1498, LM 38 2), (1499, LM 26 2)]"

definition ts_lex_modes_11 :: "(TSStateId \<times> TSLexMode) list" where
  "ts_lex_modes_11 = [
     (1500, LM 27 2), (1501, LM 27 2), (1502, LM 27 2), (1503, LM 28 2), (1504, LM 38 2),
     (1505, LM 28 2), (1506, LM 28 2), (1507, LM 28 2), (1508, LM 28 2), (1509, LM 19 2),
     (1510, LM 28 2), (1511, LM 26 2), (1512, LM 28 2), (1513, LM 28 2), (1514, LM 28 2),
     (1515, LM 38 2), (1516, LM 28 2), (1517, LM 6 2), (1518, LM 28 2), (1519, LM 28 2),
     (1520, LM 28 2), (1521, LM 28 2), (1522, LM 100 2), (1523, LM 28 2), (1524, LM 28 2),
     (1525, LM 28 2), (1526, LM 28 2), (1527, LM 28 2), (1528, LM 28 2), (1529, LM 28 2),
     (1530, LM 38 2), (1531, LM 28 2), (1532, LM 28 2), (1533, LM 28 2), (1534, LM 28 2),
     (1535, LM 26 2), (1536, LM 26 2), (1537, LM 19 2), (1538, LM 101 2), (1539, LM 28 2),
     (1540, LM 28 2), (1541, LM 28 2), (1542, LM 19 2), (1543, LM 28 2), (1544, LM 28 2),
     (1545, LM 28 2), (1546, LM 6 2), (1547, LM 28 2), (1548, LM 28 2), (1549, LM 28 2),
     (1550, LM 28 2), (1551, LM 28 2), (1552, LM 19 2), (1553, LM 26 2), (1554, LM 26 2),
     (1555, LM 100 2), (1556, LM 26 2), (1557, LM 38 2), (1558, LM 100 2), (1559, LM 38 2),
     (1560, LM 28 2), (1561, LM 6 2), (1562, LM 6 2), (1563, LM 28 2), (1564, LM 100 2),
     (1565, LM 38 2), (1566, LM 38 2), (1567, LM 100 2), (1568, LM 26 2), (1569, LM 100 2),
     (1570, LM 6 2), (1571, LM 100 2), (1572, LM 100 2), (1573, LM 28 2), (1574, LM 6 2),
     (1575, LM 6 2), (1576, LM 100 2), (1577, LM 100 2), (1578, LM 28 2), (1579, LM 100 2),
     (1580, LM 26 2), (1581, LM 100 2), (1582, LM 6 2), (1583, LM 28 2), (1584, LM 100 2),
     (1585, LM 100 2), (1586, LM 38 2), (1587, LM 38 2), (1588, LM 26 2), (1589, LM 26 2),
     (1590, LM 26 2), (1591, LM 28 2), (1592, LM 26 2), (1593, LM 23 2), (1594, LM 28 2),
     (1595, LM 28 2), (1596, LM 28 2), (1597, LM 23 2), (1598, LM 100 2), (1599, LM 26 2),
     (1600, LM 26 2), (1601, LM 26 2), (1602, LM 26 2), (1603, LM 26 2), (1604, LM 100 2),
     (1605, LM 38 2), (1606, LM 26 2), (1607, LM 38 2), (1608, LM 26 2), (1609, LM 28 2),
     (1610, LM 100 2), (1611, LM 100 2), (1612, LM 38 2), (1613, LM 100 2), (1614, LM 38 2),
     (1615, LM 26 2), (1616, LM 38 2), (1617, LM 26 2), (1618, LM 26 2), (1619, LM 26 2),
     (1620, LM 26 2), (1621, LM 26 2), (1622, LM 26 2), (1623, LM 26 2), (1624, LM 26 2),
     (1625, LM 38 2), (1626, LM 26 2), (1627, LM 26 2), (1628, LM 26 2), (1629, LM 26 2),
     (1630, LM 6 2), (1631, LM 26 2), (1632, LM 26 2), (1633, LM 26 2), (1634, LM 26 2),
     (1635, LM 26 2), (1636, LM 38 2), (1637, LM 26 2), (1638, LM 26 2), (1639, LM 38 2),
     (1640, LM 26 2), (1641, LM 26 2), (1642, LM 38 2), (1643, LM 26 2), (1644, LM 26 2),
     (1645, LM 26 2), (1646, LM 38 2), (1647, LM 26 2), (1648, LM 26 2), (1649, LM 26 2)]"

definition ts_lex_modes_12 :: "(TSStateId \<times> TSLexMode) list" where
  "ts_lex_modes_12 = [
     (1650, LM 38 2), (1651, LM 26 2), (1652, LM 26 2), (1653, LM 26 2), (1654, LM 26 2),
     (1655, LM 26 2), (1656, LM 6 2), (1657, LM 6 2), (1658, LM 6 2), (1659, LM 26 2),
     (1660, LM 26 2), (1661, LM 26 2), (1662, LM 6 2), (1663, LM 6 2), (1664, LM 38 2),
     (1665, LM 6 2), (1666, LM 6 2), (1667, LM 38 2), (1668, LM 101 2), (1669, LM 26 2),
     (1670, LM 38 2), (1671, LM 100 2), (1672, LM 38 2), (1673, LM 101 2), (1674, LM 100 2),
     (1675, LM 26 2), (1676, LM 38 2), (1677, LM 26 2), (1678, LM 38 2), (1679, LM 26 2),
     (1680, LM 38 2), (1681, LM 38 2), (1682, LM 26 2), (1683, LM 38 2), (1684, LM 38 2),
     (1685, LM 38 2), (1686, LM 101 2), (1687, LM 38 2), (1688, LM 101 2), (1689, LM 101 2),
     (1690, LM 101 2), (1691, LM 101 2), (1692, LM 38 2), (1693, LM 101 2), (1694, LM 38 2),
     (1695, LM 101 2), (1696, LM 26 2), (1697, LM 38 2), (1698, LM 101 2), (1699, LM 101 2),
     (1700, LM 38 2), (1701, LM 101 2), (1702, LM 38 2), (1703, LM 38 2), (1704, LM 38 2),
     (1705, LM 101 2), (1706, LM 38 2), (1707, LM 101 2), (1708, LM 26 2), (1709, LM 26 2),
     (1710, LM 26 2), (1711, LM 26 2), (1712, LM 101 2), (1713, LM 100 2), (1714, LM 101 2),
     (1715, LM 101 2), (1716, LM 101 2), (1717, LM 101 2), (1718, LM 102 2), (1719, LM 100 2),
     (1720, LM 100 2), (1721, LM 102 2), (1722, LM 101 2), (1723, LM 100 2), (1724, LM 100 2),
     (1725, LM 100 2), (1726, LM 0 2), (1727, LM 101 2), (1728, LM 101 2), (1729, LM 101 2),
     (1730, LM 101 2), (1731, LM 101 2), (1732, LM 101 2), (1733, LM 101 2), (1734, LM 101 2),
     (1735, LM 101 2), (1736, LM 101 2), (1737, LM 101 2), (1738, LM 101 2), (1739, LM 101 2),
     (1740, LM 101 2), (1741, LM 101 2), (1742, LM 101 2), (1743, LM 101 2), (1744, LM 101 2),
     (1745, LM 101 2), (1746, LM 101 2), (1747, LM 101 2), (1748, LM 101 2), (1749, LM 101 2),
     (1750, LM 101 2), (1751, LM 101 2), (1752, LM 101 2), (1753, LM 101 2), (1754, LM 101 2),
     (1755, LM 101 2), (1756, LM 101 2), (1757, LM 101 2), (1758, LM 101 2), (1759, LM 101 2),
     (1760, LM 101 2), (1761, LM 101 2), (1762, LM 101 2), (1763, LM 101 2), (1764, LM 101 2),
     (1765, LM 101 2), (1766, LM 101 2), (1767, LM 101 2), (1768, LM 101 2), (1769, LM 101 2),
     (1770, LM 101 2), (1771, LM 101 2), (1772, LM 101 2), (1773, LM 101 2), (1774, LM 101 2),
     (1775, LM 101 2), (1776, LM 101 2), (1777, LM 101 2), (1778, LM 101 2), (1779, LM 101 2),
     (1780, LM 101 2), (1781, LM 101 2), (1782, LM 101 2), (1783, LM 101 2), (1784, LM 101 2),
     (1785, LM 101 2), (1786, LM 101 2), (1787, LM 101 2), (1788, LM 101 2), (1789, LM 101 2),
     (1790, LM 101 2), (1791, LM 101 2), (1792, LM 101 2), (1793, LM 101 2), (1794, LM 101 2),
     (1795, LM 101 2), (1796, LM 101 2), (1797, LM 101 2), (1798, LM 101 2),
     (1799, LM 101 2)]"

definition ts_lex_modes_13 :: "(TSStateId \<times> TSLexMode) list" where
  "ts_lex_modes_13 = [
     (1800, LM 101 2), (1801, LM 101 2), (1802, LM 101 2), (1803, LM 101 2), (1804, LM 101 2),
     (1805, LM 101 2), (1806, LM 101 2), (1807, LM 101 2), (1808, LM 101 2), (1809, LM 101 2),
     (1810, LM 101 2), (1811, LM 19 2), (1812, LM 19 2), (1813, LM 101 2), (1814, LM 101 2),
     (1815, LM 101 2), (1816, LM 101 2), (1817, LM 0 2), (1818, LM 101 2), (1819, LM 101 2),
     (1820, LM 101 2), (1821, LM 101 2), (1822, LM 19 2), (1823, LM 101 2), (1824, LM 101 2),
     (1825, LM 19 2), (1826, LM 19 2), (1827, LM 19 2), (1828, LM 19 2), (1829, LM 19 2),
     (1830, LM 101 2), (1831, LM 19 2), (1832, LM 19 2), (1833, LM 101 2), (1834, LM 101 2),
     (1835, LM 101 2), (1836, LM 101 2), (1837, LM 101 2), (1838, LM 101 2), (1839, LM 101 2),
     (1840, LM 0 2), (1841, LM 101 2), (1842, LM 101 2), (1843, LM 101 2), (1844, LM 101 2),
     (1845, LM 101 2), (1846, LM 101 2), (1847, LM 101 2), (1848, LM 101 2), (1849, LM 101 2),
     (1850, LM 19 2), (1851, LM 101 2), (1852, LM 101 2), (1853, LM 19 2), (1854, LM 19 2),
     (1855, LM 101 2), (1856, LM 101 2), (1857, LM 101 2), (1858, LM 101 2), (1859, LM 101 2),
     (1860, LM 19 2), (1861, LM 101 2), (1862, LM 101 2), (1863, LM 101 2), (1864, LM 101 2),
     (1865, LM 101 2), (1866, LM 101 2), (1867, LM 101 2), (1868, LM 19 2), (1869, LM 0 2),
     (1870, LM 101 2), (1871, LM 101 2), (1872, LM 101 2), (1873, LM 101 2), (1874, LM 101 2),
     (1875, LM 101 2), (1876, LM 101 2), (1877, LM 101 2), (1878, LM 101 2), (1879, LM 19 2),
     (1880, LM 101 2), (1881, LM 101 2), (1882, LM 101 2), (1883, LM 19 2), (1884, LM 101 2),
     (1885, LM 0 2), (1886, LM 101 2), (1887, LM 101 2), (1888, LM 101 2), (1889, LM 101 2),
     (1890, LM 101 2), (1891, LM 101 2), (1892, LM 101 2), (1893, LM 0 2), (1894, LM 101 2),
     (1895, LM 101 2), (1896, LM 101 2), (1897, LM 101 2), (1898, LM 101 2), (1899, LM 101 2),
     (1900, LM 101 2), (1901, LM 101 2), (1902, LM 101 2), (1903, LM 101 2), (1904, LM 38 2),
     (1905, LM 101 2), (1906, LM 101 2), (1907, LM 101 2), (1908, LM 0 2), (1909, LM 0 2),
     (1910, LM 101 2), (1911, LM 19 2), (1912, LM 101 2), (1913, LM 101 2), (1914, LM 101 2),
     (1915, LM 101 2), (1916, LM 101 2), (1917, LM 101 2), (1918, LM 100 2), (1919, LM 101 2),
     (1920, LM 100 2), (1921, LM 24 2), (1922, LM 0 2), (1923, LM 101 2), (1924, LM 101 2),
     (1925, LM 100 2), (1926, LM 100 2), (1927, LM 101 2), (1928, LM 101 2), (1929, LM 100 2),
     (1930, LM 101 2), (1931, LM 9 2), (1932, LM 9 2), (1933, LM 38 2), (1934, LM 101 2),
     (1935, LM 101 2), (1936, LM 9 2), (1937, LM 100 2), (1938, LM 9 2), (1939, LM 9 2),
     (1940, LM 9 2), (1941, LM 100 2), (1942, LM 100 2), (1943, LM 9 2), (1944, LM 100 2),
     (1945, LM 100 2), (1946, LM 101 2), (1947, LM 101 2), (1948, LM 9 2), (1949, LM 9 2)]"

definition ts_lex_modes_14 :: "(TSStateId \<times> TSLexMode) list" where
  "ts_lex_modes_14 = [
     (1950, LM 101 2), (1951, LM 9 2), (1952, LM 9 2), (1953, LM 101 2), (1954, LM 101 2),
     (1955, LM 9 2), (1956, LM 9 2), (1957, LM 101 2), (1958, LM 100 2), (1959, LM 101 2),
     (1960, LM 9 2), (1961, LM 101 2), (1962, LM 20 2), (1963, LM 20 2), (1964, LM 20 2),
     (1965, LM 20 2), (1966, LM 20 2), (1967, LM 20 2), (1968, LM 20 2), (1969, LM 101 2),
     (1970, LM 20 2), (1971, LM 101 2), (1972, LM 101 2), (1973, LM 100 2), (1974, LM 100 2),
     (1975, LM 100 2), (1976, LM 101 2), (1977, LM 100 2), (1978, LM 100 2), (1979, LM 100 2),
     (1980, LM 100 2), (1981, LM 101 2), (1982, LM 100 2), (1983, LM 101 2), (1984, LM 101 2),
     (1985, LM 38 2), (1986, LM 101 2), (1987, LM 101 2), (1988, LM 101 2), (1989, LM 101 2),
     (1990, LM 9 2), (1991, LM 100 2), (1992, LM 101 2), (1993, LM 101 2), (1994, LM 100 2),
     (1995, LM 101 2), (1996, LM 100 2), (1997, LM 100 2), (1998, LM 100 2), (1999, LM 100 2),
     (2000, LM 38 2), (2001, LM 100 2), (2002, LM 100 2), (2003, LM 100 2), (2004, LM 38 2),
     (2005, LM 101 2), (2006, LM 101 2), (2007, LM 101 2), (2008, LM 41 2), (2009, LM 41 2),
     (2010, LM 101 2), (2011, LM 41 2), (2012, LM 24 2), (2013, LM 101 2), (2014, LM 24 2),
     (2015, LM 24 2), (2016, LM 41 2), (2017, LM 24 2), (2018, LM 19 2), (2019, LM 101 2),
     (2020, LM 41 2), (2021, LM 101 2), (2022, LM 24 2), (2023, LM 101 2), (2024, LM 41 2),
     (2025, LM 24 2), (2026, LM 24 2), (2027, LM 101 2), (2028, LM 24 2), (2029, LM 24 2),
     (2030, LM 101 2), (2031, LM 41 2), (2032, LM 24 2), (2033, LM 101 2), (2034, LM 24 2),
     (2035, LM 101 2), (2036, LM 101 2), (2037, LM 41 2), (2038, LM 38 2), (2039, LM 24 2),
     (2040, LM 101 2), (2041, LM 24 2), (2042, LM 101 2), (2043, LM 101 2), (2044, LM 101 2),
     (2045, LM 24 2), (2046, LM 24 2), (2047, LM 24 2), (2048, LM 101 2), (2049, LM 24 2),
     (2050, LM 24 2), (2051, LM 101 2), (2052, LM 24 2), (2053, LM 101 2), (2054, LM 101 2),
     (2055, LM 24 2), (2056, LM 24 2), (2057, LM 101 2), (2058, LM 101 2), (2059, LM 101 2),
     (2060, LM 38 2), (2061, LM 101 2), (2062, LM 101 2), (2063, LM 38 2), (2064, LM 101 2),
     (2065, LM 101 2), (2066, LM 101 2), (2067, LM 102 2), (2068, LM 101 2), (2069, LM 101 2),
     (2070, LM 101 2), (2071, LM 101 2), (2072, LM 101 2), (2073, LM 101 2), (2074, LM 101 2),
     (2075, LM 101 2), (2076, LM 101 2), (2077, LM 101 2), (2078, LM 19 2), (2079, LM 101 2),
     (2080, LM 101 2), (2081, LM 101 2), (2082, LM 101 2), (2083, LM 101 2), (2084, LM 101 2),
     (2085, LM 101 2), (2086, LM 101 2), (2087, LM 101 2), (2088, LM 101 2), (2089, LM 101 2),
     (2090, LM 101 2), (2091, LM 101 2), (2092, LM 101 2), (2093, LM 101 2), (2094, LM 101 2),
     (2095, LM 23 2), (2096, LM 101 2), (2097, LM 101 2), (2098, LM 101 2), (2099, LM 102 2)]"

definition ts_lex_modes_15 :: "(TSStateId \<times> TSLexMode) list" where
  "ts_lex_modes_15 = [
     (2100, LM 101 2), (2101, LM 23 2), (2102, LM 19 2), (2103, LM 101 2), (2104, LM 19 2),
     (2105, LM 19 2), (2106, LM 19 2), (2107, LM 101 2), (2108, LM 19 2), (2109, LM 19 2),
     (2110, LM 19 2), (2111, LM 101 2), (2112, LM 100 2), (2113, LM 101 2), (2114, LM 19 2),
     (2115, LM 19 2), (2116, LM 100 2), (2117, LM 38 2), (2118, LM 101 2), (2119, LM 19 2),
     (2120, LM 19 2), (2121, LM 19 2), (2122, LM 19 2), (2123, LM 19 2), (2124, LM 19 2),
     (2125, LM 19 2), (2126, LM 38 2), (2127, LM 19 2), (2128, LM 19 2), (2129, LM 19 2),
     (2130, LM 19 2), (2131, LM 100 2), (2132, LM 100 2), (2133, LM 19 2), (2134, LM 19 2),
     (2135, LM 20 2), (2136, LM 101 2), (2137, LM 12 2), (2138, LM 12 2), (2139, LM 101 2),
     (2140, LM 20 2), (2141, LM 38 2), (2142, LM 12 2), (2143, LM 101 2), (2144, LM 38 2),
     (2145, LM 38 2), (2146, LM 101 2), (2147, LM 101 2), (2148, LM 101 2), (2149, LM 101 2),
     (2150, LM 20 3), (2151, LM 17 4), (2152, LM 101 2), (2153, LM 17 4), (2154, LM 17 4),
     (2155, LM 101 2), (2156, LM 38 2), (2157, LM 20 3), (2158, LM 17 2), (2159, LM 101 2),
     (2160, LM 17 4), (2161, LM 38 2), (2162, LM 20 3), (2163, LM 101 2), (2164, LM 38 2),
     (2165, LM 17 4), (2166, LM 17 4), (2167, LM 38 2), (2168, LM 101 2), (2169, LM 102 2),
     (2170, LM 20 3), (2171, LM 101 2), (2172, LM 17 4), (2173, LM 20 3), (2174, LM 38 2),
     (2175, LM 38 2), (2176, LM 20 3), (2177, LM 17 4), (2178, LM 17 4), (2179, LM 17 4),
     (2180, LM 17 4), (2181, LM 20 3), (2182, LM 20 3), (2183, LM 20 3), (2184, LM 20 3),
     (2185, LM 20 3), (2186, LM 101 2), (2187, LM 0 2), (2188, LM 101 2), (2189, LM 38 2),
     (2190, LM 101 2), (2191, LM 33 5), (2192, LM 33 6), (2193, LM 101 2), (2194, LM 101 2),
     (2195, LM 0 2), (2196, LM 33 5), (2197, LM 101 2), (2198, LM 33 6), (2199, LM 101 2),
     (2200, LM 100 2), (2201, LM 20 7), (2202, LM 17 8), (2203, LM 33 6), (2204, LM 102 2),
     (2205, LM 100 2), (2206, LM 33 5), (2207, LM 0 2), (2208, LM 20 7), (2209, LM 17 8),
     (2210, LM 33 6), (2211, LM 17 8), (2212, LM 33 5), (2213, LM 20 7), (2214, LM 17 8),
     (2215, LM 20 7), (2216, LM 38 2), (2217, LM 101 2), (2218, LM 33 5), (2219, LM 38 2),
     (2220, LM 33 6), (2221, LM 101 2), (2222, LM 17 8), (2223, LM 20 7), (2224, LM 101 2),
     (2225, LM 38 2), (2226, LM 33 6), (2227, LM 33 5), (2228, LM 101 2), (2229, LM 17 8),
     (2230, LM 101 2), (2231, LM 101 2), (2232, LM 33 6), (2233, LM 33 5), (2234, LM 101 2),
     (2235, LM 101 2), (2236, LM 17 8), (2237, LM 3 2), (2238, LM 20 7), (2239, LM 33 5),
     (2240, LM 33 6), (2241, LM 20 7), (2242, LM 17 8), (2243, LM 20 7), (2244, LM 17 8),
     (2245, LM 33 6), (2246, LM 33 5), (2247, LM 38 2), (2248, LM 17 8), (2249, LM 20 7)]"

definition ts_lex_modes_16 :: "(TSStateId \<times> TSLexMode) list" where
  "ts_lex_modes_16 = [
     (2250, LM 17 8), (2251, LM 33 6), (2252, LM 101 2), (2253, LM 33 5), (2254, LM 20 7),
     (2255, LM 33 6), (2256, LM 33 5), (2257, LM 101 2), (2258, LM 101 2), (2259, LM 38 2),
     (2260, LM 100 2), (2261, LM 20 7), (2262, LM 38 2), (2263, LM 33 9), (2264, LM 0 2),
     (2265, LM 22 2), (2266, LM 101 2), (2267, LM 101 2), (2268, LM 0 2), (2269, LM 101 2),
     (2270, LM 101 2), (2271, LM 0 2), (2272, LM 101 2), (2273, LM 100 2), (2274, LM 0 2),
     (2275, LM 101 2), (2276, LM 22 2), (2277, LM 101 2), (2278, LM 101 2), (2279, LM 100 2),
     (2280, LM 33 10), (2281, LM 33 9), (2282, LM 101 2), (2283, LM 101 2), (2284, LM 100 2),
     (2285, LM 22 2), (2286, LM 101 2), (2287, LM 101 2), (2288, LM 101 2), (2289, LM 22 2),
     (2290, LM 33 9), (2291, LM 0 2), (2292, LM 101 2), (2293, LM 101 2), (2294, LM 33 9),
     (2295, LM 33 10), (2296, LM 22 2), (2297, LM 101 2), (2298, LM 33 9), (2299, LM 100 2),
     (2300, LM 33 10), (2301, LM 33 10), (2302, LM 22 2), (2303, LM 0 2), (2304, LM 33 10),
     (2305, LM 22 2), (2306, LM 33 9), (2307, LM 29 8), (2308, LM 101 2), (2309, LM 101 2),
     (2310, LM 101 2), (2311, LM 22 2), (2312, LM 101 2), (2313, LM 33 9), (2314, LM 33 10),
     (2315, LM 100 2), (2316, LM 33 9), (2317, LM 33 10), (2318, LM 33 9), (2319, LM 33 10),
     (2320, LM 3 2), (2321, LM 101 2), (2322, LM 33 9), (2323, LM 32 7), (2324, LM 33 9),
     (2325, LM 22 2), (2326, LM 33 10), (2327, LM 101 2), (2328, LM 33 10), (2329, LM 22 2),
     (2330, LM 33 10), (2331, LM 22 2), (2332, LM 100 2), (2333, LM 0 2), (2334, LM 100 2),
     (2335, LM 100 2), (2336, LM 3 2), (2337, LM 0 2), (2338, LM 100 2), (2339, LM 0 2),
     (2340, LM 100 2), (2341, LM 100 2), (2342, LM 0 2), (2343, LM 101 2), (2344, LM 101 2),
     (2345, LM 100 2), (2346, LM 100 2), (2347, LM 0 2), (2348, LM 100 2), (2349, LM 0 2),
     (2350, LM 100 2), (2351, LM 100 2), (2352, LM 22 2), (2353, LM 100 2), (2354, LM 0 2),
     (2355, LM 100 2), (2356, LM 100 2), (2357, LM 101 2), (2358, LM 0 2), (2359, LM 100 2),
     (2360, LM 0 2), (2361, LM 3 2), (2362, LM 17 8), (2363, LM 100 2), (2364, LM 100 2),
     (2365, LM 100 2), (2366, LM 100 2), (2367, LM 100 2), (2368, LM 0 2), (2369, LM 100 2),
     (2370, LM 0 2), (2371, LM 100 2), (2372, LM 101 2), (2373, LM 101 2), (2374, LM 100 2),
     (2375, LM 0 2), (2376, LM 100 2), (2377, LM 101 2), (2378, LM 101 2), (2379, LM 100 2),
     (2380, LM 100 2), (2381, LM 100 2), (2382, LM 100 2), (2383, LM 100 2), (2384, LM 100 2),
     (2385, LM 100 2), (2386, LM 100 2), (2387, LM 100 2), (2388, LM 100 2), (2389, LM 100 2),
     (2390, LM 100 2), (2391, LM 100 2), (2392, LM 0 2), (2393, LM 100 2), (2394, LM 100 2),
     (2395, LM 101 2), (2396, LM 100 2), (2397, LM 100 2), (2398, LM 20 7), (2399, LM 100 2)]"

definition ts_lex_modes_17 :: "(TSStateId \<times> TSLexMode) list" where
  "ts_lex_modes_17 = [
     (2400, LM 101 2), (2401, LM 100 2), (2402, LM 17 8), (2403, LM 0 2), (2404, LM 100 2),
     (2405, LM 100 2), (2406, LM 22 2), (2407, LM 38 2), (2408, LM 20 7), (2409, LM 100 2),
     (2410, LM 101 2), (2411, LM 101 2), (2412, LM 100 2), (2413, LM 100 2), (2414, LM 100 2),
     (2415, LM 100 2), (2416, LM 100 2), (2417, LM 0 2), (2418, LM 22 2), (2419, LM 101 2),
     (2420, LM 38 2), (2421, LM 101 2), (2422, LM 0 2), (2423, LM 100 2), (2424, LM 101 2),
     (2425, LM 35 10), (2426, LM 0 2), (2427, LM 100 2), (2428, LM 100 2), (2429, LM 0 2),
     (2430, LM 0 2), (2431, LM 101 2), (2432, LM 100 2), (2433, LM 101 2), (2434, LM 35 9),
     (2435, LM 100 2), (2436, LM 101 2), (2437, LM 101 2), (2438, LM 100 2), (2439, LM 33 10),
     (2440, LM 101 2), (2441, LM 20 3), (2442, LM 100 2), (2443, LM 101 2), (2444, LM 101 2),
     (2445, LM 100 2), (2446, LM 0 2), (2447, LM 100 2), (2448, LM 33 9), (2449, LM 20 3),
     (2450, LM 101 2), (2451, LM 0 2), (2452, LM 101 2), (2453, LM 17 4), (2454, LM 100 2),
     (2455, LM 101 2), (2456, LM 101 2), (2457, LM 3 2), (2458, LM 0 2), (2459, LM 0 2),
     (2460, LM 0 2), (2461, LM 100 2), (2462, LM 100 2), (2463, LM 100 2), (2464, LM 100 2),
     (2465, LM 100 2), (2466, LM 100 2), (2467, LM 20 3), (2468, LM 100 2), (2469, LM 100 2),
     (2470, LM 0 2), (2471, LM 100 2), (2472, LM 100 2), (2473, LM 100 2), (2474, LM 100 2),
     (2475, LM 100 2), (2476, LM 101 2), (2477, LM 101 2), (2478, LM 100 2), (2479, LM 101 2),
     (2480, LM 100 2), (2481, LM 101 2), (2482, LM 101 2), (2483, LM 100 2), (2484, LM 101 2),
     (2485, LM 100 2), (2486, LM 101 2), (2487, LM 17 4), (2488, LM 101 2), (2489, LM 101 2),
     (2490, LM 101 2), (2491, LM 101 2), (2492, LM 0 2), (2493, LM 0 2), (2494, LM 100 2),
     (2495, LM 17 4), (2496, LM 3 2), (2497, LM 33 10), (2498, LM 17 4), (2499, LM 17 4),
     (2500, LM 100 2), (2501, LM 101 2), (2502, LM 3 2), (2503, LM 101 2), (2504, LM 102 2),
     (2505, LM 101 2), (2506, LM 0 2), (2507, LM 101 2), (2508, LM 0 2), (2509, LM 101 2),
     (2510, LM 101 2), (2511, LM 101 2), (2512, LM 101 2), (2513, LM 100 2), (2514, LM 101 2),
     (2515, LM 101 2), (2516, LM 0 2), (2517, LM 33 9), (2518, LM 20 3), (2519, LM 20 3),
     (2520, LM 0 2), (2521, LM 0 2), (2522, LM 101 2), (2523, LM 100 2), (2524, LM 100 2),
     (2525, LM 100 2), (2526, LM 0 2), (2527, LM 101 2), (2528, LM 102 2), (2529, LM 101 2),
     (2530, LM 101 2), (2531, LM 33 6), (2532, LM 101 2), (2533, LM 33 6), (2534, LM 101 2),
     (2535, LM 101 2), (2536, LM 0 2), (2537, LM 3 2), (2538, LM 33 5), (2539, LM 100 2),
     (2540, LM 101 2), (2541, LM 101 2), (2542, LM 100 2), (2543, LM 3 2), (2544, LM 101 2),
     (2545, LM 101 2), (2546, LM 100 2), (2547, LM 101 2), (2548, LM 101 2), (2549, LM 0 2)]"

definition ts_lex_modes_18 :: "(TSStateId \<times> TSLexMode) list" where
  "ts_lex_modes_18 = [
     (2550, LM 101 2), (2551, LM 101 2), (2552, LM 100 2), (2553, LM 101 2), (2554, LM 101 2),
     (2555, LM 101 2), (2556, LM 102 2), (2557, LM 101 2), (2558, LM 33 6), (2559, LM 101 2),
     (2560, LM 102 2), (2561, LM 101 2), (2562, LM 101 2), (2563, LM 101 2), (2564, LM 101 2),
     (2565, LM 0 2), (2566, LM 101 2), (2567, LM 101 2), (2568, LM 0 2), (2569, LM 33 5),
     (2570, LM 33 5), (2571, LM 101 2), (2572, LM 101 2), (2573, LM 33 6), (2574, LM 101 2),
     (2575, LM 101 2), (2576, LM 100 2), (2577, LM 100 2), (2578, LM 101 2), (2579, LM 101 2),
     (2580, LM 102 2), (2581, LM 101 2), (2582, LM 101 2), (2583, LM 33 5), (2584, LM 33 6),
     (2585, LM 33 5), (2586, LM 101 2), (2587, LM 101 2), (2588, LM 101 2), (2589, LM 101 2),
     (2590, LM 0 2), (2591, LM 0 2), (2592, LM 100 2), (2593, LM 101 2), (2594, LM 100 2),
     (2595, LM 100 2), (2596, LM 101 2), (2597, LM 101 2), (2598, LM 101 2), (2599, LM 101 2),
     (2600, LM 101 2), (2601, LM 101 2), (2602, LM 100 2), (2603, LM 101 2), (2604, LM 100 2),
     (2605, LM 0 2), (2606, LM 101 2), (2607, LM 100 2), (2608, LM 101 2), (2609, LM 100 2),
     (2610, LM 0 2), (2611, LM 100 2), (2612, LM 101 2), (2613, LM 100 2), (2614, LM 101 2),
     (2615, LM 101 2), (2616, LM 101 2), (2617, LM 101 2), (2618, LM 101 2), (2619, LM 101 2),
     (2620, LM 101 2), (2621, LM 100 2), (2622, LM 101 2), (2623, LM 100 2), (2624, LM 0 2),
     (2625, LM 100 2), (2626, LM 100 2), (2627, LM 100 2), (2628, LM 100 2), (2629, LM 101 2),
     (2630, LM 0 2), (2631, LM 0 2), (2632, LM 101 2), (2633, LM 101 2), (2634, LM 101 2),
     (2635, LM 100 2), (2636, LM 101 2), (2637, LM 101 2), (2638, LM 101 2), (2639, LM 101 2),
     (2640, LM 101 2), (2641, LM 0 2), (2642, LM 100 2), (2643, LM 101 2), (2644, LM 101 2),
     (2645, LM 101 2), (2646, LM 101 2), (2647, LM 101 2), (2648, LM 100 2), (2649, LM 101 2),
     (2650, LM 100 2), (2651, LM 101 2), (2652, LM 101 2), (2653, LM 101 2), (2654, LM 100 2),
     (2655, LM 0 2), (2656, LM 100 2), (2657, LM 100 2), (2658, LM 0 2), (2659, LM 101 2),
     (2660, LM 101 2), (2661, LM 100 2), (2662, LM 100 2), (2663, LM 100 2), (2664, LM 101 2),
     (2665, LM 101 2), (2666, LM 101 2), (2667, LM 100 2), (2668, LM 100 2), (2669, LM 100 2),
     (2670, LM 0 2), (2671, LM 101 2), (2672, LM 0 2), (2673, LM 0 2), (2674, LM 0 2),
     (2675, LM 101 2), (2676, LM 101 2), (2677, LM 0 2), (2678, LM 0 2), (2679, LM 0 2),
     (2680, LM 101 2), (2681, LM 0 2), (2682, LM 0 2), (2683, LM 100 2), (2684, LM 0 2),
     (2685, LM 100 2), (2686, LM 0 2), (2687, LM 0 2), (2688, LM 0 2), (2689, LM 100 2),
     (2690, LM 101 2), (2691, LM 101 2), (2692, LM 100 2), (2693, LM 101 2), (2694, LM 0 2),
     (2695, LM 0 2), (2696, LM 0 2), (2697, LM 100 2), (2698, LM 101 2), (2699, LM 100 2)]"

definition ts_lex_modes_19 :: "(TSStateId \<times> TSLexMode) list" where
  "ts_lex_modes_19 = [
     (2700, LM 100 2), (2701, LM 0 2), (2702, LM 100 2), (2703, LM 0 2), (2704, LM 101 2),
     (2705, LM 100 2), (2706, LM 0 2), (2707, LM 0 2), (2708, LM 0 2), (2709, LM 100 2),
     (2710, LM 101 2), (2711, LM 0 2), (2712, LM 101 2), (2713, LM 101 2), (2714, LM 0 2),
     (2715, LM 0 2), (2716, LM 0 2), (2717, LM 101 2), (2718, LM 0 2), (2719, LM 0 2),
     (2720, LM 0 2), (2721, LM 100 2), (2722, LM 0 2), (2723, LM 100 2), (2724, LM 0 2),
     (2725, LM 0 2), (2726, LM 0 2), (2727, LM 0 2), (2728, LM 0 2), (2729, LM 100 2),
     (2730, LM 0 2), (2731, LM 0 2), (2732, LM 100 2), (2733, LM 101 2), (2734, LM 0 2),
     (2735, LM 0 2), (2736, LM 0 2), (2737, LM 101 2), (2738, LM 100 2), (2739, LM 0 2),
     (2740, LM 0 2), (2741, LM 101 2), (2742, LM 0 2), (2743, LM 100 2), (2744, LM 101 2),
     (2745, LM 0 2), (2746, LM 0 2), (2747, LM 0 2), (2748, LM 0 2), (2749, LM 0 2),
     (2750, LM 0 2), (2751, LM 0 2), (2752, LM 0 2), (2753, LM 0 2), (2754, LM 0 2),
     (2755, LM 101 2), (2756, LM 101 2), (2757, LM 0 2), (2758, LM 0 2), (2759, LM 0 2),
     (2760, LM 0 2), (2761, LM 100 2), (2762, LM 0 2), (2763, LM 0 2), (2764, LM 0 2),
     (2765, LM 0 2), (2766, LM 0 2), (2767, LM 101 2), (2768, LM 0 2), (2769, LM 0 2),
     (2770, LM 0 2), (2771, LM 0 2), (2772, LM 0 2), (2773, LM 0 2), (2774, LM 0 2),
     (2775, LM 0 2), (2776, LM 0 2), (2777, LM 0 2), (2778, LM 100 2), (2779, LM 101 2),
     (2780, LM 0 2), (2781, LM 0 2), (2782, LM 0 2), (2783, LM 101 2), (2784, LM 0 2),
     (2785, LM 0 2), (2786, LM 0 2), (2787, LM 0 2), (2788, LM 0 2), (2789, LM 101 2),
     (2790, LM 0 2), (2791, LM 0 2), (2792, LM 0 2), (2793, LM 0 2), (2794, LM 0 2),
     (2795, LM 0 2), (2796, LM 0 2), (2797, LM 0 2), (2798, LM 0 2), (2799, LM 101 2),
     (2800, LM 0 2), (2801, LM 0 2), (2802, LM 0 2), (2803, LM 0 2), (2804, LM 0 2),
     (2805, LM 0 2), (2806, LM 0 2), (2807, LM 0 2), (2808, LM 0 2), (2809, LM 0 2),
     (2810, LM 0 2), (2811, LM 0 2), (2812, LM 0 2), (2813, LM 100 2), (2814, LM 54 2),
     (2815, LM 0 2), (2816, LM 0 2), (2817, LM 0 2), (2818, LM 0 2), (2819, LM 0 2),
     (2820, LM 0 2), (2821, LM 0 2), (2822, LM 101 2), (2823, LM 100 2), (2824, LM 0 2),
     (2825, LM 0 2), (2826, LM 100 2), (2827, LM 0 2), (2828, LM 0 2), (2829, LM 0 2),
     (2830, LM 0 2), (2831, LM 100 2), (2832, LM 0 2), (2833, LM 100 2), (2834, LM 101 2),
     (2835, LM 0 2), (2836, LM 101 2), (2837, LM 0 2), (2838, LM 0 2), (2839, LM 0 2),
     (2840, LM 101 2), (2841, LM 101 2), (2842, LM 100 2), (2843, LM 0 2), (2844, LM 0 2),
     (2845, LM 101 2), (2846, LM 0 2), (2847, LM 0 2), (2848, LM 0 2), (2849, LM 100 2)]"

definition ts_lex_modes_20 :: "(TSStateId \<times> TSLexMode) list" where
  "ts_lex_modes_20 = [
     (2850, LM 0 2), (2851, LM 100 2), (2852, LM 0 2), (2853, LM 0 2), (2854, LM 0 2),
     (2855, LM 0 2), (2856, LM 0 2), (2857, LM 0 2), (2858, LM 0 2), (2859, LM 100 2),
     (2860, LM 0 2), (2861, LM 0 2), (2862, LM 0 2), (2863, LM 0 2), (2864, LM 54 2),
     (2865, LM 0 2), (2866, LM 0 2), (2867, LM 0 2), (2868, LM 101 2), (2869, LM 0 2),
     (2870, LM 0 2), (2871, LM 0 2), (2872, LM 0 2), (2873, LM 0 2), (2874, LM 0 2),
     (2875, LM 0 2), (2876, LM 54 2), (2877, LM 0 2), (2878, LM 0 2), (2879, LM 0 2),
     (2880, LM 0 2), (2881, LM 0 2), (2882, LM 0 2), (2883, LM 0 2), (2884, LM 101 2),
     (2885, LM 100 2), (2886, LM 0 2), (2887, LM 0 2), (2888, LM 0 2), (2889, LM 0 2),
     (2890, LM 0 2), (2891, LM 0 2), (2892, LM 0 2), (2893, LM 0 2), (2894, LM 0 2),
     (2895, LM 101 2), (2896, LM 0 2), (2897, LM 0 2), (2898, LM 101 2), (2899, LM 0 2),
     (2900, LM 0 2), (2901, LM 0 2), (2902, LM 0 2), (2903, LM 0 2), (2904, LM 0 2),
     (2905, LM 0 2), (2906, LM 101 2), (2907, LM 0 2), (2908, LM 101 2), (2909, LM 0 2),
     (2910, LM 101 2), (2911, LM 0 2), (2912, LM 0 2), (2913, LM 0 2), (2914, LM 101 2),
     (2915, LM 0 2), (2916, LM 0 2), (2917, LM 0 2), (2918, LM 101 2), (2919, LM 0 2),
     (2920, LM 100 2), (2921, LM 101 2), (2922, LM 0 2), (2923, LM 100 2), (2924, LM 0 2),
     (2925, LM 0 2), (2926, LM 0 2), (2927, LM 0 2), (2928, LM 0 2), (2929, LM 0 2),
     (2930, LM 0 2), (2931, LM 0 2), (2932, LM 0 2), (2933, LM 0 2), (2934, LM 101 2),
     (2935, LM 101 2), (2936, LM 0 2), (2937, LM 0 2), (2938, LM 0 2), (2939, LM 0 2),
     (2940, LM 101 2), (2941, LM 100 2), (2942, LM 0 2), (2943, LM 101 2), (2944, LM 101 2),
     (2945, LM 0 2), (2946, LM 0 2), (2947, LM 100 2), (2948, LM 0 2), (2949, LM 100 2),
     (2950, LM 0 2), (2951, LM 0 2), (2952, LM 0 2), (2953, LM 0 2), (2954, LM 0 2),
     (2955, LM 0 2), (2956, LM 0 2), (2957, LM 101 2), (2958, LM 100 2), (2959, LM 0 2),
     (2960, LM 100 2), (2961, LM 0 2), (2962, LM 101 2), (2963, LM 0 2), (2964, LM 0 2),
     (2965, LM 101 2), (2966, LM 100 2), (2967, LM 0 2), (2968, LM 101 2), (2969, LM 0 2),
     (2970, LM 101 2), (2971, LM 101 2), (2972, LM 0 2), (2973, LM 0 2), (2974, LM 0 2),
     (2975, LM 100 2), (2976, LM 0 2), (2977, LM 0 2), (2978, LM 0 2), (2979, LM 0 2),
     (2980, LM 0 2), (2981, LM 101 2), (2982, LM 100 2), (2983, LM 0 2), (2984, LM 101 2),
     (2985, LM 0 2), (2986, LM 0 2), (2987, LM 101 2), (2988, LM 54 2), (2989, LM 100 2),
     (2990, LM 101 2), (2991, LM 0 2), (2992, LM 0 2), (2993, LM 100 2), (2994, LM 100 2),
     (2995, LM 0 2), (2996, LM 101 2), (2997, LM 0 2), (2998, LM 0 2), (2999, LM 101 2)]"

definition ts_lex_modes_21 :: "(TSStateId \<times> TSLexMode) list" where
  "ts_lex_modes_21 = [
     (3000, LM 0 2), (3001, LM 101 2), (3002, LM 0 2), (3003, LM 0 2), (3004, LM 0 2),
     (3005, LM 0 2), (3006, LM 100 2), (3007, LM 101 2), (3008, LM 100 2), (3009, LM 0 2),
     (3010, LM 0 2), (3011, LM 0 2), (3012, LM 0 2), (3013, LM 0 2), (3014, LM 0 2),
     (3015, LM 0 2), (3016, LM 0 2), (3017, LM 0 2), (3018, LM 100 2), (3019, LM 101 2),
     (3020, LM 0 2), (3021, LM 102 2), (3022, LM 0 2), (3023, LM 0 2), (3024, LM 0 2),
     (3025, LM 0 2), (3026, LM 101 2), (3027, LM 0 2), (3028, LM 100 2), (3029, LM 0 2),
     (3030, LM 0 2), (3031, LM 0 2), (3032, LM 101 2), (3033, LM 0 2), (3034, LM 0 2),
     (3035, LM 100 2), (3036, LM 100 2), (3037, LM 0 2), (3038, LM 0 2), (3039, LM 101 2),
     (3040, LM 0 2), (3041, LM 0 2), (3042, LM 0 2), (3043, LM 101 2), (3044, LM 101 2),
     (3045, LM 101 2), (3046, LM 0 2), (3047, LM 0 2), (3048, LM 0 2), (3049, LM 0 2),
     (3050, LM 0 2), (3051, LM 0 2), (3052, LM 0 2), (3053, LM 101 2), (3054, LM 0 2),
     (3055, LM 0 2), (3056, LM 0 2), (3057, LM 0 2), (3058, LM 101 2), (3059, LM 0 2),
     (3060, LM 0 2), (3061, LM 0 2), (3062, LM 0 2), (3063, LM 0 2), (3064, LM 0 2),
     (3065, LM 0 2), (3066, LM 0 2), (3067, LM 0 2), (3068, LM 100 2), (3069, LM 0 2),
     (3070, LM 0 2), (3071, LM 0 2), (3072, LM 101 2), (3073, LM 0 2), (3074, LM 0 2),
     (3075, LM 0 2), (3076, LM 101 2), (3077, LM 0 2), (3078, LM 0 2), (3079, LM 0 2),
     (3080, LM 0 2), (3081, LM 0 2), (3082, LM 101 2), (3083, LM 0 2), (3084, LM 0 2),
     (3085, LM 0 2), (3086, LM 0 2), (3087, LM 0 2), (3088, LM 0 2), (3089, LM 0 2),
     (3090, LM 0 2), (3091, LM 0 2), (3092, LM 0 2), (3093, LM 17 2), (3094, LM 0 2),
     (3095, LM 0 2), (3096, LM 101 2), (3097, LM 0 2), (3098, LM 0 2), (3099, LM 0 2),
     (3100, LM 0 2), (3101, LM 0 2), (3102, LM 0 2), (3103, LM 101 2), (3104, LM 0 2),
     (3105, LM 0 2), (3106, LM 0 2), (3107, LM 0 2), (3108, LM 0 2), (3109, LM 0 2),
     (3110, LM 0 2), (3111, LM 0 2), (3112, LM 0 2), (3113, LM 0 2), (3114, LM 0 2),
     (3115, LM 0 2), (3116, LM 101 2), (3117, LM 0 2), (3118, LM 0 2), (3119, LM 0 2),
     (3120, LM 0 2), (3121, LM 101 2), (3122, LM 0 2), (3123, LM 0 2), (3124, LM 0 2),
     (3125, LM 101 2), (3126, LM 0 2), (3127, LM 0 2), (3128, LM 0 2), (3129, LM 0 2),
     (3130, LM 0 2), (3131, LM 100 2), (3132, LM 101 2), (3133, LM 0 2), (3134, LM 0 2),
     (3135, LM 0 2), (3136, LM 101 2), (3137, LM 100 2), (3138, LM 0 2), (3139, LM 0 2),
     (3140, LM 0 2), (3141, LM 0 2), (3142, LM 0 2), (3143, LM 101 2), (3144, LM 0 2),
     (3145, LM 0 2), (3146, LM 0 2), (3147, LM 0 2), (3148, LM 0 2), (3149, LM 0 2)]"

definition ts_lex_modes_22 :: "(TSStateId \<times> TSLexMode) list" where
  "ts_lex_modes_22 = [
     (3150, LM 0 2), (3151, LM 0 2), (3152, LM 0 2), (3153, LM 0 2), (3154, LM 100 2),
     (3155, LM 0 2), (3156, LM 0 2), (3157, LM 0 2), (3158, LM 0 2), (3159, LM 0 2),
     (3160, LM 0 2), (3161, LM 0 2), (3162, LM 0 2), (3163, LM 0 2), (3164, LM 0 2),
     (3165, LM 0 2), (3166, LM 0 2), (3167, LM 0 2), (3168, LM 0 2), (3169, LM 0 2),
     (3170, LM 101 2), (3171, LM 0 2), (3172, LM 0 2), (3173, LM 101 2), (3174, LM 0 2),
     (3175, LM 0 2), (3176, LM 0 2), (3177, LM 0 2), (3178, LM 0 2), (3179, LM 0 2),
     (3180, LM 0 2), (3181, LM 0 2), (3182, LM 101 2), (3183, LM 0 2), (3184, LM 0 2),
     (3185, LM 0 2), (3186, LM 0 2), (3187, LM 0 2), (3188, LM 0 2), (3189, LM 100 2),
     (3190, LM 0 2), (3191, LM 0 2), (3192, LM 0 2), (3193, LM 0 2), (3194, LM 0 2),
     (3195, LM 101 2), (3196, LM 0 2), (3197, LM 0 2), (3198, LM 100 2), (3199, LM 0 2),
     (3200, LM 0 2), (3201, LM 0 2), (3202, LM 0 2), (3203, LM 0 2), (3204, LM 101 2),
     (3205, LM 0 2), (3206, LM 0 2), (3207, LM 101 2), (3208, LM 0 2), (3209, LM 0 2),
     (3210, LM 0 2), (3211, LM 100 2), (3212, LM 0 2), (3213, LM 0 2), (3214, LM 0 2),
     (3215, LM 0 2), (3216, LM 0 2), (3217, LM 0 2), (3218, LM 0 2), (3219, LM 101 2),
     (3220, LM 0 2), (3221, LM 101 2), (3222, LM 0 2), (3223, LM 0 2), (3224, LM 101 2),
     (3225, LM 0 2), (3226, LM 0 2), (3227, LM 101 2), (3228, LM 0 2), (3229, LM 101 2),
     (3230, LM 0 2), (3231, LM 0 2), (3232, LM 101 2), (3233, LM 101 2), (3234, LM 0 2),
     (3235, LM 0 2), (3236, LM 0 2), (3237, LM 0 2), (3238, LM 0 2), (3239, LM 101 2),
     (3240, LM 0 2), (3241, LM 0 2), (3242, LM 0 2), (3243, LM 0 2), (3244, LM 0 2),
     (3245, LM 0 2), (3246, LM 0 2), (3247, LM 0 2), (3248, LM 101 2), (3249, LM 0 2),
     (3250, LM 101 2), (3251, LM 0 2), (3252, LM 100 2), (3253, LM 0 2), (3254, LM 0 2),
     (3255, LM 0 2), (3256, LM 0 2), (3257, LM 0 2), (3258, LM 0 2), (3259, LM 0 2),
     (3260, LM 0 2), (3261, LM 101 2), (3262, LM 0 2), (3263, LM 100 2), (3264, LM 0 2),
     (3265, LM 0 2), (3266, LM 0 2), (3267, LM 100 2), (3268, LM 0 2), (3269, LM 0 2),
     (3270, LM 100 2), (3271, LM 0 2), (3272, LM 100 2), (3273, LM 101 2), (3274, LM 101 2),
     (3275, LM 101 2), (3276, LM 100 2), (3277, LM 0 2), (3278, LM 0 2), (3279, LM 101 2),
     (3280, LM 0 2), (3281, LM 0 2), (3282, LM 100 2), (3283, LM 100 2), (3284, LM 101 2),
     (3285, LM 0 2), (3286, LM 0 2), (3287, LM 100 2), (3288, LM 100 2), (3289, LM 0 2),
     (3290, LM 0 2), (3291, LM 0 2), (3292, LM 0 2), (3293, LM 0 2), (3294, LM 101 2),
     (3295, LM 0 2), (3296, LM 101 2), (3297, LM 0 2), (3298, LM 101 2), (3299, LM 0 2)]"

definition ts_lex_modes_23 :: "(TSStateId \<times> TSLexMode) list" where
  "ts_lex_modes_23 = [
     (3300, LM 101 2), (3301, LM 0 2), (3302, LM 0 2), (3303, LM 101 2), (3304, LM 101 2),
     (3305, LM 101 2), (3306, LM 0 2), (3307, LM 0 2), (3308, LM 101 2), (3309, LM 0 2),
     (3310, LM 101 2), (3311, LM 0 2), (3312, LM 101 2), (3313, LM 0 2), (3314, LM 0 2),
     (3315, LM 0 2), (3316, LM 0 2), (3317, LM 0 2), (3318, LM 0 2), (3319, LM 100 2),
     (3320, LM 0 2), (3321, LM 0 2), (3322, LM 0 2), (3323, LM 0 2), (3324, LM 101 2),
     (3325, LM 0 2), (3326, LM 101 2), (3327, LM 0 2), (3328, LM 0 2), (3329, LM 0 2),
     (3330, LM 0 2), (3331, LM 0 2), (3332, LM 101 2), (3333, LM 101 2), (3334, LM 0 2),
     (3335, LM 101 2), (3336, LM 0 2), (3337, LM 0 2), (3338, LM 101 2), (3339, LM 0 2),
     (3340, LM 100 2), (3341, LM 0 2), (3342, LM 0 2), (3343, LM 101 2), (3344, LM 101 2),
     (3345, LM 0 2), (3346, LM 0 2), (3347, LM 0 2), (3348, LM 0 2), (3349, LM 0 2),
     (3350, LM 0 2), (3351, LM 0 2), (3352, LM 0 2), (3353, LM 0 2), (3354, LM 0 2),
     (3355, LM 0 2), (3356, LM 0 2), (3357, LM 0 2), (3358, LM 0 2), (3359, LM 0 2),
     (3360, LM 0 2), (3361, LM 101 2), (3362, LM 0 2), (3363, LM 0 2), (3364, LM 0 2),
     (3365, LM 0 2), (3366, LM 101 2), (3367, LM 101 2), (3368, LM 0 2), (3369, LM 101 2),
     (3370, LM 0 2), (3371, LM 0 2), (3372, LM 101 2), (3373, LM 101 2), (3374, LM 101 2),
     (3375, LM 0 2), (3376, LM 101 2), (3377, LM 0 2), (3378, LM 101 2), (3379, LM 101 2),
     (3380, LM 0 2), (3381, LM 0 2), (3382, LM 101 2), (3383, LM 101 2), (3384, LM 0 2),
     (3385, LM 0 2), (3386, LM 101 2), (3387, LM 101 2), (3388, LM 0 2), (3389, LM 101 2),
     (3390, LM 0 2), (3391, LM 101 2), (3392, LM 101 2), (3393, LM 0 2), (3394, LM 0 2),
     (3395, LM 100 2), (3396, LM 101 2), (3397, LM 101 2), (3398, LM 0 2), (3399, LM 0 2),
     (3400, LM 0 2), (3401, LM 101 2), (3402, LM 101 2), (3403, LM 0 2), (3404, LM 0 2),
     (3405, LM 101 2), (3406, LM 101 2), (3407, LM 0 2), (3408, LM 0 2), (3409, LM 100 2),
     (3410, LM 100 2), (3411, LM 101 2), (3412, LM 101 2), (3413, LM 100 2), (3414, LM 0 2),
     (3415, LM 0 2), (3416, LM 101 2), (3417, LM 0 2), (3418, LM 0 2), (3419, LM 101 2),
     (3420, LM 0 2), (3421, LM 101 2), (3422, LM 100 2), (3423, LM 0 2), (3424, LM 0 2),
     (3425, LM 101 2), (3426, LM 101 2), (3427, LM 100 2), (3428, LM 0 2), (3429, LM 0 2),
     (3430, LM 0 2), (3431, LM 101 2), (3432, LM 0 2), (3433, LM 0 2), (3434, LM 0 2),
     (3435, LM 0 2), (3436, LM 0 2), (3437, LM 0 2), (3438, LM 0 2), (3439, LM 101 2),
     (3440, LM 0 2), (3441, LM 0 2), (3442, LM 0 2), (3443, LM 101 2), (3444, LM 101 2),
     (3445, LM 0 2), (3446, LM 0 2), (3447, LM 0 2), (3448, LM 101 2), (3449, LM 0 2)]"

definition ts_lex_modes_24 :: "(TSStateId \<times> TSLexMode) list" where
  "ts_lex_modes_24 = [
     (3450, LM 101 2), (3451, LM 0 2), (3452, LM 0 2), (3453, LM 101 2), (3454, LM 100 2),
     (3455, LM 0 2), (3456, LM 0 2), (3457, LM 101 2), (3458, LM 100 2), (3459, LM 1 2),
     (3460, LM 0 2), (3461, LM 0 2), (3462, LM 0 2), (3463, LM 0 2), (3464, LM 0 2),
     (3465, LM 0 2), (3466, LM 0 2), (3467, LM 0 2), (3468, LM 0 2), (3469, LM 101 2),
     (3470, LM 0 2), (3471, LM 0 2), (3472, LM 0 2), (3473, LM 100 2), (3474, LM 101 2),
     (3475, LM 0 2), (3476, LM 100 2), (3477, LM 0 2), (3478, LM 101 2), (3479, LM 101 2),
     (3480, LM 0 2), (3481, LM 0 2), (3482, LM 17 2), (3483, LM 0 2), (3484, LM 0 2),
     (3485, LM 101 2), (3486, LM 101 2), (3487, LM 0 2), (3488, LM 101 2), (3489, LM 0 2),
     (3490, LM 101 2), (3491, LM 100 2), (3492, LM 0 2), (3493, LM 101 2), (3494, LM 0 2),
     (3495, LM 101 2), (3496, LM 0 2), (3497, LM 0 2), (3498, LM 0 2), (3499, LM 101 2),
     (3500, LM 101 2), (3501, LM 101 2), (3502, LM 0 2), (3503, LM 0 2), (3504, LM 2 2),
     (3505, LM 0 2), (3506, LM 0 2), (3507, LM 0 2), (3508, LM 101 2), (3509, LM 0 2),
     (3510, LM 0 2), (3511, LM 101 2), (3512, LM 0 2), (3513, LM 100 2), (3514, LM 101 2),
     (3515, LM 101 2), (3516, LM 0 2), (3517, LM 0 2), (3518, LM 0 2), (3519, LM 0 2),
     (3520, LM 0 2), (3521, LM 0 2), (3522, LM 0 2), (3523, LM 101 2), (3524, LM 101 2),
     (3525, LM 101 2), (3526, LM 0 2), (3527, LM 101 2), (3528, LM 0 2), (3529, LM 101 2),
     (3530, LM 101 2), (3531, LM 101 2), (3532, LM 101 2), (3533, LM 100 2), (3534, LM 101 2),
     (3535, LM 101 2), (3536, LM 101 2), (3537, LM 101 2), (3538, LM 100 2), (3539, LM 101 2),
     (3540, LM 0 2), (3541, LM 101 2), (3542, LM 0 2), (3543, LM 101 2), (3544, LM 0 2),
     (3545, LM 290 2), (3546, LM 0 2), (3547, LM 101 2), (3548, LM 0 2), (3549, LM 101 2),
     (3550, LM 45 2), (3551, LM 100 2), (3552, LM 0 2), (3553, LM 276 2), (3554, LM 0 2),
     (3555, LM 0 2), (3556, LM 0 2), (3557, LM 101 2), (3558, LM 0 2), (3559, LM 0 2),
     (3560, LM 101 2), (3561, LM 0 2), (3562, LM 0 2), (3563, LM 0 2), (3564, LM 0 2),
     (3565, LM 0 2), (3566, LM 0 2), (3567, LM 101 2), (3568, LM 0 2), (3569, LM 0 2),
     (3570, LM 0 2), (3571, LM 0 2), (3572, NO_LEX_MODE), (3573, NO_LEX_MODE),
     (3574, NO_LEX_MODE), (3575, NO_LEX_MODE), (3576, NO_LEX_MODE)]"

definition ts_lex_modes_table :: "(TSStateId \<times> TSLexMode) list" where
  "ts_lex_modes_table =
     ts_lex_modes_1 @ ts_lex_modes_2 @ ts_lex_modes_3 @ ts_lex_modes_4 @ ts_lex_modes_5 @
     ts_lex_modes_6 @ ts_lex_modes_7 @ ts_lex_modes_8 @ ts_lex_modes_9 @ ts_lex_modes_10 @
     ts_lex_modes_11 @ ts_lex_modes_12 @ ts_lex_modes_13 @ ts_lex_modes_14 @ ts_lex_modes_15 @
     ts_lex_modes_16 @ ts_lex_modes_17 @ ts_lex_modes_18 @ ts_lex_modes_19 @ ts_lex_modes_20 @
     ts_lex_modes_21 @ ts_lex_modes_22 @ ts_lex_modes_23 @ ts_lex_modes_24"

definition ts_lex_modes :: "TSStateId \<rightharpoonup> TSLexMode" where
  "ts_lex_modes = map_of ts_lex_modes_table"

lemma lex_modes_keys:
  "map fst ts_lex_modes_1 = [0..<150]"
  "map fst ts_lex_modes_2 = [150..<300]"
  "map fst ts_lex_modes_3 = [300..<450]"
  "map fst ts_lex_modes_4 = [450..<600]"
  "map fst ts_lex_modes_5 = [600..<750]"
  "map fst ts_lex_modes_6 = [750..<900]"
  "map fst ts_lex_modes_7 = [900..<1050]"
  "map fst ts_lex_modes_8 = [1050..<1200]"
  "map fst ts_lex_modes_9 = [1200..<1350]"
  "map fst ts_lex_modes_10 = [1350..<1500]"
  "map fst ts_lex_modes_11 = [1500..<1650]"
  "map fst ts_lex_modes_12 = [1650..<1800]"
  "map fst ts_lex_modes_13 = [1800..<1950]"
  "map fst ts_lex_modes_14 = [1950..<2100]"
  "map fst ts_lex_modes_15 = [2100..<2250]"
  "map fst ts_lex_modes_16 = [2250..<2400]"
  "map fst ts_lex_modes_17 = [2400..<2550]"
  "map fst ts_lex_modes_18 = [2550..<2700]"
  "map fst ts_lex_modes_19 = [2700..<2850]"
  "map fst ts_lex_modes_20 = [2850..<3000]"
  "map fst ts_lex_modes_21 = [3000..<3150]"
  "map fst ts_lex_modes_22 = [3150..<3300]"
  "map fst ts_lex_modes_23 = [3300..<3450]"
  "map fst ts_lex_modes_24 = [3450..<3577]"
  by (simp add: ts_lex_modes_1_def upt_from_0)
    (simp_all add: ts_lex_modes_2_def ts_lex_modes_3_def ts_lex_modes_4_def ts_lex_modes_5_def
    ts_lex_modes_6_def ts_lex_modes_7_def ts_lex_modes_8_def ts_lex_modes_9_def
    ts_lex_modes_10_def ts_lex_modes_11_def ts_lex_modes_12_def ts_lex_modes_13_def
    ts_lex_modes_14_def ts_lex_modes_15_def ts_lex_modes_16_def ts_lex_modes_17_def
    ts_lex_modes_18_def ts_lex_modes_19_def ts_lex_modes_20_def ts_lex_modes_21_def
    ts_lex_modes_22_def ts_lex_modes_23_def ts_lex_modes_24_def)

lemma lex_modes_keys_all: "map fst ts_lex_modes_table = [0..<STATE_COUNT]"
  by (simp add: ts_lex_modes_table_def lex_modes_keys upt_join del: upt_rec_numeral)

lemma lex_modes_dom: "ts_lex_modes p \<noteq> None \<longleftrightarrow> p < STATE_COUNT"
  using map_of_upt_keys [OF lex_modes_keys_all, of p] by (simp add: ts_lex_modes_def)

text \<open>The entries as equations.\<close>

lemma lex_modes_eqs_blocks:
  "list_all (\<lambda>(k, x). ts_lex_modes k = Some x) ts_lex_modes_1"
  "list_all (\<lambda>(k, x). ts_lex_modes k = Some x) ts_lex_modes_2"
  "list_all (\<lambda>(k, x). ts_lex_modes k = Some x) ts_lex_modes_3"
  "list_all (\<lambda>(k, x). ts_lex_modes k = Some x) ts_lex_modes_4"
  "list_all (\<lambda>(k, x). ts_lex_modes k = Some x) ts_lex_modes_5"
  "list_all (\<lambda>(k, x). ts_lex_modes k = Some x) ts_lex_modes_6"
  "list_all (\<lambda>(k, x). ts_lex_modes k = Some x) ts_lex_modes_7"
  "list_all (\<lambda>(k, x). ts_lex_modes k = Some x) ts_lex_modes_8"
  "list_all (\<lambda>(k, x). ts_lex_modes k = Some x) ts_lex_modes_9"
  "list_all (\<lambda>(k, x). ts_lex_modes k = Some x) ts_lex_modes_10"
  "list_all (\<lambda>(k, x). ts_lex_modes k = Some x) ts_lex_modes_11"
  "list_all (\<lambda>(k, x). ts_lex_modes k = Some x) ts_lex_modes_12"
  "list_all (\<lambda>(k, x). ts_lex_modes k = Some x) ts_lex_modes_13"
  "list_all (\<lambda>(k, x). ts_lex_modes k = Some x) ts_lex_modes_14"
  "list_all (\<lambda>(k, x). ts_lex_modes k = Some x) ts_lex_modes_15"
  "list_all (\<lambda>(k, x). ts_lex_modes k = Some x) ts_lex_modes_16"
  "list_all (\<lambda>(k, x). ts_lex_modes k = Some x) ts_lex_modes_17"
  "list_all (\<lambda>(k, x). ts_lex_modes k = Some x) ts_lex_modes_18"
  "list_all (\<lambda>(k, x). ts_lex_modes k = Some x) ts_lex_modes_19"
  "list_all (\<lambda>(k, x). ts_lex_modes k = Some x) ts_lex_modes_20"
  "list_all (\<lambda>(k, x). ts_lex_modes k = Some x) ts_lex_modes_21"
  "list_all (\<lambda>(k, x). ts_lex_modes k = Some x) ts_lex_modes_22"
  "list_all (\<lambda>(k, x). ts_lex_modes k = Some x) ts_lex_modes_23"
  "list_all (\<lambda>(k, x). ts_lex_modes k = Some x) ts_lex_modes_24"
  using map_of_all [of ts_lex_modes_table, unfolded lex_modes_keys_all, OF distinct_upt, folded ts_lex_modes_def]
  by (simp_all add: ts_lex_modes_table_def list_all_append)

lemmas lex_modes_eqs [simp] =
  lex_modes_eqs_blocks(1) [unfolded ts_lex_modes_1_def list_all_tens prod.case One_nat_def]
  lex_modes_eqs_blocks(2) [unfolded ts_lex_modes_2_def list_all_tens prod.case One_nat_def]
  lex_modes_eqs_blocks(3) [unfolded ts_lex_modes_3_def list_all_tens prod.case One_nat_def]
  lex_modes_eqs_blocks(4) [unfolded ts_lex_modes_4_def list_all_tens prod.case One_nat_def]
  lex_modes_eqs_blocks(5) [unfolded ts_lex_modes_5_def list_all_tens prod.case One_nat_def]
  lex_modes_eqs_blocks(6) [unfolded ts_lex_modes_6_def list_all_tens prod.case One_nat_def]
  lex_modes_eqs_blocks(7) [unfolded ts_lex_modes_7_def list_all_tens prod.case One_nat_def]
  lex_modes_eqs_blocks(8) [unfolded ts_lex_modes_8_def list_all_tens prod.case One_nat_def]
  lex_modes_eqs_blocks(9) [unfolded ts_lex_modes_9_def list_all_tens prod.case One_nat_def]
  lex_modes_eqs_blocks(10) [unfolded ts_lex_modes_10_def list_all_tens prod.case One_nat_def]
  lex_modes_eqs_blocks(11) [unfolded ts_lex_modes_11_def list_all_tens prod.case One_nat_def]
  lex_modes_eqs_blocks(12) [unfolded ts_lex_modes_12_def list_all_tens prod.case One_nat_def]
  lex_modes_eqs_blocks(13) [unfolded ts_lex_modes_13_def list_all_tens prod.case One_nat_def]
  lex_modes_eqs_blocks(14) [unfolded ts_lex_modes_14_def list_all_tens prod.case One_nat_def]
  lex_modes_eqs_blocks(15) [unfolded ts_lex_modes_15_def list_all_tens prod.case One_nat_def]
  lex_modes_eqs_blocks(16) [unfolded ts_lex_modes_16_def list_all_tens prod.case One_nat_def]
  lex_modes_eqs_blocks(17) [unfolded ts_lex_modes_17_def list_all_tens prod.case One_nat_def]
  lex_modes_eqs_blocks(18) [unfolded ts_lex_modes_18_def list_all_tens prod.case One_nat_def]
  lex_modes_eqs_blocks(19) [unfolded ts_lex_modes_19_def list_all_tens prod.case One_nat_def]
  lex_modes_eqs_blocks(20) [unfolded ts_lex_modes_20_def list_all_tens prod.case One_nat_def]
  lex_modes_eqs_blocks(21) [unfolded ts_lex_modes_21_def list_all_tens prod.case One_nat_def]
  lex_modes_eqs_blocks(22) [unfolded ts_lex_modes_22_def list_all_tens prod.case One_nat_def]
  lex_modes_eqs_blocks(23) [unfolded ts_lex_modes_23_def list_all_tens prod.case One_nat_def]
  lex_modes_eqs_blocks(24) [unfolded ts_lex_modes_24_def list_all_tens prod.case One_nat_def]

subsection \<open>What the entries are\<close>

text \<open>
  The lexer states the table uses, and the check of one entry: such a state with an external row
  from 1 to 10, or no mode at all.
\<close>

definition mode_states :: "nat list" where
  "mode_states = [0, 1, 2, 3, 4, 5, 6, 7, 8, 9, 10, 11, 12, 13, 14, 15, 17, 19, 20, 22, 23, 24, 25, 26, 27, 28, 29, 32, 33, 35,
     38, 41, 45, 54, 100, 101, 102, 276, 290]"

definition mode_ok :: "TSLexMode \<Rightarrow> bool" where
  "mode_ok m \<longleftrightarrow> m = NO_LEX_MODE \<or>
     lex_state m \<in> set mode_states \<and> 0 < external_lex_state m \<and> external_lex_state m < 11"

text \<open>The distinct entries.\<close>

lemma mode_oks [simp]:
  "mode_ok NO_LEX_MODE" "mode_ok (LM 0 (Suc 0))" "mode_ok (LM 0 2)" "mode_ok (LM (Suc 0) 2)"
  "mode_ok (LM 2 2)" "mode_ok (LM 3 2)" "mode_ok (LM 4 2)" "mode_ok (LM 5 2)"
  "mode_ok (LM 6 2)" "mode_ok (LM 7 2)" "mode_ok (LM 8 2)" "mode_ok (LM 9 2)"
  "mode_ok (LM 10 2)" "mode_ok (LM 11 2)" "mode_ok (LM 12 2)" "mode_ok (LM 13 2)"
  "mode_ok (LM 14 2)" "mode_ok (LM 15 2)" "mode_ok (LM 17 2)" "mode_ok (LM 17 4)"
  "mode_ok (LM 17 8)" "mode_ok (LM 19 2)" "mode_ok (LM 20 2)" "mode_ok (LM 20 3)"
  "mode_ok (LM 20 7)" "mode_ok (LM 22 2)" "mode_ok (LM 23 2)" "mode_ok (LM 24 2)"
  "mode_ok (LM 25 2)" "mode_ok (LM 26 2)" "mode_ok (LM 27 2)" "mode_ok (LM 28 2)"
  "mode_ok (LM 29 8)" "mode_ok (LM 32 7)" "mode_ok (LM 33 5)" "mode_ok (LM 33 6)"
  "mode_ok (LM 33 9)" "mode_ok (LM 33 10)" "mode_ok (LM 35 9)" "mode_ok (LM 35 10)"
  "mode_ok (LM 38 2)" "mode_ok (LM 41 2)" "mode_ok (LM 45 2)" "mode_ok (LM 54 2)"
  "mode_ok (LM 100 2)" "mode_ok (LM 101 2)" "mode_ok (LM 102 2)" "mode_ok (LM 276 2)"
  "mode_ok (LM 290 2)"
  by (simp_all add: mode_ok_def mode_states_def)

lemma mode_ok_1: "list_all (\<lambda>(p, m). mode_ok m) ts_lex_modes_1"
  by (simp add: ts_lex_modes_1_def)

lemma mode_ok_2: "list_all (\<lambda>(p, m). mode_ok m) ts_lex_modes_2"
  by (simp add: ts_lex_modes_2_def)

lemma mode_ok_3: "list_all (\<lambda>(p, m). mode_ok m) ts_lex_modes_3"
  by (simp add: ts_lex_modes_3_def)

lemma mode_ok_4: "list_all (\<lambda>(p, m). mode_ok m) ts_lex_modes_4"
  by (simp add: ts_lex_modes_4_def)

lemma mode_ok_5: "list_all (\<lambda>(p, m). mode_ok m) ts_lex_modes_5"
  by (simp add: ts_lex_modes_5_def)

lemma mode_ok_6: "list_all (\<lambda>(p, m). mode_ok m) ts_lex_modes_6"
  by (simp add: ts_lex_modes_6_def)

lemma mode_ok_7: "list_all (\<lambda>(p, m). mode_ok m) ts_lex_modes_7"
  by (simp add: ts_lex_modes_7_def)

lemma mode_ok_8: "list_all (\<lambda>(p, m). mode_ok m) ts_lex_modes_8"
  by (simp add: ts_lex_modes_8_def)

lemma mode_ok_9: "list_all (\<lambda>(p, m). mode_ok m) ts_lex_modes_9"
  by (simp add: ts_lex_modes_9_def)

lemma mode_ok_10: "list_all (\<lambda>(p, m). mode_ok m) ts_lex_modes_10"
  by (simp add: ts_lex_modes_10_def)

lemma mode_ok_11: "list_all (\<lambda>(p, m). mode_ok m) ts_lex_modes_11"
  by (simp add: ts_lex_modes_11_def)

lemma mode_ok_12: "list_all (\<lambda>(p, m). mode_ok m) ts_lex_modes_12"
  by (simp add: ts_lex_modes_12_def)

lemma mode_ok_13: "list_all (\<lambda>(p, m). mode_ok m) ts_lex_modes_13"
  by (simp add: ts_lex_modes_13_def)

lemma mode_ok_14: "list_all (\<lambda>(p, m). mode_ok m) ts_lex_modes_14"
  by (simp add: ts_lex_modes_14_def)

lemma mode_ok_15: "list_all (\<lambda>(p, m). mode_ok m) ts_lex_modes_15"
  by (simp add: ts_lex_modes_15_def)

lemma mode_ok_16: "list_all (\<lambda>(p, m). mode_ok m) ts_lex_modes_16"
  by (simp add: ts_lex_modes_16_def)

lemma mode_ok_17: "list_all (\<lambda>(p, m). mode_ok m) ts_lex_modes_17"
  by (simp add: ts_lex_modes_17_def)

lemma mode_ok_18: "list_all (\<lambda>(p, m). mode_ok m) ts_lex_modes_18"
  by (simp add: ts_lex_modes_18_def)

lemma mode_ok_19: "list_all (\<lambda>(p, m). mode_ok m) ts_lex_modes_19"
  by (simp add: ts_lex_modes_19_def)

lemma mode_ok_20: "list_all (\<lambda>(p, m). mode_ok m) ts_lex_modes_20"
  by (simp add: ts_lex_modes_20_def)

lemma mode_ok_21: "list_all (\<lambda>(p, m). mode_ok m) ts_lex_modes_21"
  by (simp add: ts_lex_modes_21_def)

lemma mode_ok_22: "list_all (\<lambda>(p, m). mode_ok m) ts_lex_modes_22"
  by (simp add: ts_lex_modes_22_def)

lemma mode_ok_23: "list_all (\<lambda>(p, m). mode_ok m) ts_lex_modes_23"
  by (simp add: ts_lex_modes_23_def)

lemma mode_ok_24: "list_all (\<lambda>(p, m). mode_ok m) ts_lex_modes_24"
  by (simp add: ts_lex_modes_24_def)

lemma mode_ok_all: "list_all (\<lambda>(p, m). mode_ok m) ts_lex_modes_table"
  by (simp add: ts_lex_modes_table_def mode_ok_1 mode_ok_2 mode_ok_3 mode_ok_4 mode_ok_5 mode_ok_6
    mode_ok_7 mode_ok_8 mode_ok_9 mode_ok_10 mode_ok_11 mode_ok_12
    mode_ok_13 mode_ok_14 mode_ok_15 mode_ok_16 mode_ok_17 mode_ok_18
    mode_ok_19 mode_ok_20 mode_ok_21 mode_ok_22 mode_ok_23 mode_ok_24)
text \<open>The row in which every external token is valid is that of the error state 0 only.\<close>

definition error_row_only :: "TSStateId \<Rightarrow> TSLexMode \<Rightarrow> bool" where
  "error_row_only p m \<longleftrightarrow> (external_lex_state m = 1 \<longrightarrow> p = 0)"

lemma error_row:
  "list_all (\<lambda>(p, m). error_row_only p m) ts_lex_modes_1"
  "list_all (\<lambda>(p, m). error_row_only p m) ts_lex_modes_2"
  "list_all (\<lambda>(p, m). error_row_only p m) ts_lex_modes_3"
  "list_all (\<lambda>(p, m). error_row_only p m) ts_lex_modes_4"
  "list_all (\<lambda>(p, m). error_row_only p m) ts_lex_modes_5"
  "list_all (\<lambda>(p, m). error_row_only p m) ts_lex_modes_6"
  "list_all (\<lambda>(p, m). error_row_only p m) ts_lex_modes_7"
  "list_all (\<lambda>(p, m). error_row_only p m) ts_lex_modes_8"
  "list_all (\<lambda>(p, m). error_row_only p m) ts_lex_modes_9"
  "list_all (\<lambda>(p, m). error_row_only p m) ts_lex_modes_10"
  "list_all (\<lambda>(p, m). error_row_only p m) ts_lex_modes_11"
  "list_all (\<lambda>(p, m). error_row_only p m) ts_lex_modes_12"
  "list_all (\<lambda>(p, m). error_row_only p m) ts_lex_modes_13"
  "list_all (\<lambda>(p, m). error_row_only p m) ts_lex_modes_14"
  "list_all (\<lambda>(p, m). error_row_only p m) ts_lex_modes_15"
  "list_all (\<lambda>(p, m). error_row_only p m) ts_lex_modes_16"
  "list_all (\<lambda>(p, m). error_row_only p m) ts_lex_modes_17"
  "list_all (\<lambda>(p, m). error_row_only p m) ts_lex_modes_18"
  "list_all (\<lambda>(p, m). error_row_only p m) ts_lex_modes_19"
  "list_all (\<lambda>(p, m). error_row_only p m) ts_lex_modes_20"
  "list_all (\<lambda>(p, m). error_row_only p m) ts_lex_modes_21"
  "list_all (\<lambda>(p, m). error_row_only p m) ts_lex_modes_22"
  "list_all (\<lambda>(p, m). error_row_only p m) ts_lex_modes_23"
  "list_all (\<lambda>(p, m). error_row_only p m) ts_lex_modes_24"
  by (simp_all add: error_row_only_def ts_lex_modes_1_def ts_lex_modes_2_def ts_lex_modes_3_def ts_lex_modes_4_def
    ts_lex_modes_5_def ts_lex_modes_6_def ts_lex_modes_7_def ts_lex_modes_8_def
    ts_lex_modes_9_def ts_lex_modes_10_def ts_lex_modes_11_def ts_lex_modes_12_def
    ts_lex_modes_13_def ts_lex_modes_14_def ts_lex_modes_15_def ts_lex_modes_16_def
    ts_lex_modes_17_def ts_lex_modes_18_def ts_lex_modes_19_def ts_lex_modes_20_def
    ts_lex_modes_21_def ts_lex_modes_22_def ts_lex_modes_23_def ts_lex_modes_24_def)

lemma error_row_all: "list_all (\<lambda>(p, m). error_row_only p m) ts_lex_modes_table"
  by (simp add: ts_lex_modes_table_def error_row)

lemma error_row_state: "ts_lex_modes s = Some m \<Longrightarrow> external_lex_state m = 1 \<Longrightarrow> s = 0"
  using map_of_list_all [OF error_row_all, of s m] by (simp add: ts_lex_modes_def error_row_only_def)

end
