(* ===== verification/Dart_Lexer.thy ===== *)
theory Dart_Lexer
  imports Dart_Keywords Dart_Lexemes Dart_Modes
begin

text \<open>
  What the main lexer \<^verbatim>\<open>ts_lex\<close> does in the modes of the parser (\<^verbatim>\<open>ts_lex_modes\<close>): it returns on every
  input, its tokens are lexemes of their symbols, it takes the longest token, it makes progress,
  and the tokens with a fixed text are all found.
\<close>

subsection \<open>Modes start in start states\<close>

lemma mode_states_start: "list_all lex_start mode_states"
  by (simp add: mode_states_def lex_start_def lex_reach_eqs text_rules)

lemma mode_start:
  assumes "ts_lex_modes p = Some m" and "lex_state m \<noteq> 65535"
  shows "lex_start (lex_state m)"
proof -
  have "mode_ok m"
    using map_of_list_all [OF mode_ok_all, of p m] assms(1) by (simp add: ts_lex_modes_def)
  with assms(2) mode_states_start show ?thesis by (auto simp: mode_ok_def list_all_iff)
qed

text \<open>The states with a mode: every state whose entry is not ``no lookahead is needed''.\<close>

lemma mode_used:
  assumes "ts_lex_modes p = Some m" and "m \<noteq> NO_LEX_MODE"
  shows "lex_state m \<in> set mode_states" and "0 < external_lex_state m" and "external_lex_state m < 11"
proof -
  have "mode_ok m" using map_of_list_all [OF mode_ok_all, of p m] assms(1) by (simp add: ts_lex_modes_def)
  with assms(2) show "lex_state m \<in> set mode_states" "0 < external_lex_state m" "external_lex_state m < 11"
    by (auto simp: mode_ok_def)
qed

subsection \<open>The tokens with a fixed text\<close>

text \<open>
  Operators, delimiters, quotes and the words the main lexer knows, each with a state of the table
  of modes in which it is found.
\<close>

definition fixed_tokens :: "(TSStateId \<times> string \<times> TSSymbol) list" where
  "fixed_tokens = [
     (101, ''#'', anon_sym_POUND), (101, [CHR 0x22], anon_sym_DQUOTE),
     (101, [CHR 0x27], anon_sym_SQUOTE),
     (101, [CHR 0x22, CHR 0x22, CHR 0x22], anon_sym_DQUOTE_DQUOTE_DQUOTE),
     (101, [CHR 0x27, CHR 0x27, CHR 0x27], anon_sym_SQUOTE_SQUOTE_SQUOTE),
     (101, [CHR ''r'', CHR 0x22], anon_sym_r_DQUOTE), (0, ''$'', anon_sym_DOLLAR),
     (101, [CHR ''r'', CHR 0x27], anon_sym_r_SQUOTE),
     (101, [CHR ''r'', CHR 0x22, CHR 0x22, CHR 0x22], anon_sym_r_DQUOTE_DQUOTE_DQUOTE),
     (101, [CHR ''r'', CHR 0x27, CHR 0x27, CHR 0x27], anon_sym_r_SQUOTE_SQUOTE_SQUOTE),
     (101, ''{'', anon_sym_LBRACE), (101, ''}'', anon_sym_RBRACE), (101, ''['', anon_sym_LBRACK),
     (101, '','', anon_sym_COMMA), (101, '']'', anon_sym_RBRACK), (101, '':'', anon_sym_COLON),
     (101, ''('', anon_sym_LPAREN), (101, '')'', anon_sym_RPAREN), (101, ''='', anon_sym_EQ),
     (0, ''+='', anon_sym_PLUS_EQ), (0, ''-='', anon_sym_DASH_EQ), (0, ''*='', anon_sym_STAR_EQ),
     (0, ''/='', anon_sym_SLASH_EQ), (0, ''%='', anon_sym_PERCENT_EQ),
     (0, ''~/='', anon_sym_TILDE_SLASH_EQ), (0, ''<<='', anon_sym_LT_LT_EQ),
     (0, ''>>='', anon_sym_GT_GT_EQ), (0, ''>>>='', anon_sym_GT_GT_GT_EQ),
     (0, ''&='', anon_sym_AMP_EQ), (0, ''^='', anon_sym_CARET_EQ), (0, ''|='', anon_sym_PIPE_EQ),
     (0, ''??='', anon_sym_QMARK_QMARK_EQ), (0, ''??'', anon_sym_QMARK_QMARK),
     (101, ''?'', anon_sym_QMARK), (0, ''!='', sym_equality_operator),
     (6, ''=='', sym_equality_operator), (101, ''<'', anon_sym_LT), (101, ''>'', anon_sym_GT),
     (0, ''<='', anon_sym_LT_EQ), (0, ''>='', anon_sym_GT_EQ), (0, ''|'', anon_sym_PIPE),
     (0, ''^'', anon_sym_CARET), (0, ''&'', anon_sym_AMP), (0, ''<<'', anon_sym_LT_LT),
     (0, ''>>'', anon_sym_GT_GT), (0, ''>>>'', anon_sym_GT_GT_GT),
     (0, ''+'', sym__additive_operator), (6, ''-'', sym__additive_operator),
     (101, ''*'', anon_sym_STAR), (0, ''/'', anon_sym_SLASH), (0, ''%'', anon_sym_PERCENT),
     (0, ''~/'', anon_sym_TILDE_SLASH), (101, ''++'', sym_increment_operator),
     (101, ''--'', sym_increment_operator), (101, ''...'', anon_sym_DOT_DOT_DOT),
     (101, ''-'', sym_minus_operator), (101, ''!'', anon_sym_BANG), (101, ''~'', anon_sym_TILDE),
     (0, ''as'', anon_sym_as), (0, ''.'', anon_sym_DOT), (0, ''?.'', anon_sym_QMARK_DOT),
     (0, ''..'', anon_sym_DOT_DOT), (0, ''?..'', anon_sym_QMARK_DOT_DOT),
     (101, '';'', anon_sym_SEMI), (101, ''=>'', anon_sym_EQ_GT), (101, ''@'', anon_sym_AT),
     (0, ''=='', anon_sym_EQ_EQ), (19, ''[]'', anon_sym_LBRACK_RBRACK),
     (19, ''[]='', anon_sym_LBRACK_RBRACK_EQ), (0, ''async'', anon_sym_async),
     (0, ''async*'', anon_sym_async_STAR), (0, ''sync*'', anon_sym_sync_STAR),
     (0, ''#!'', anon_sym_POUND_BANG), (0, ''part of'', sym_part_of_builtin),
     (101, ''&&'', anon_sym_AMP_AMP), (101, ''||'', anon_sym_PIPE_PIPE),
     (101, ''//'', anon_sym_SLASH_SLASH), (101, ''/*'', anon_sym_SLASH_STAR),
     (101, ''///'', anon_sym_SLASH_SLASH_SLASH), (1, [CHR 0x0A], anon_sym_LF)]"

lemmas ts_lex_bodies =
  map_of_all [of ts_lex_cases, unfolded lex_keys_all, OF distinct_upt, folded ts_lex_switch_def,
    unfolded ts_lex_cases_def list_all_append
    ts_lex_cases_1_def ts_lex_cases_2_def ts_lex_cases_3_def ts_lex_cases_4_def ts_lex_cases_5_def
    ts_lex_cases_6_def ts_lex_cases_7_def ts_lex_cases_8_def ts_lex_cases_9_def ts_lex_cases_10_def
    ts_lex_cases_11_def ts_lex_cases_12_def ts_lex_cases_13_def ts_lex_cases_14_def
    ts_lex_cases_15_def ts_lex_cases_16_def list.pred_inject prod.case One_nat_def]

definition lexes :: "TSStateId \<Rightarrow> string \<Rightarrow> TSSymbol \<Rightarrow> bool" where
  "lexes s w sy \<longleftrightarrow> lex_word ts_lex_switch (codes w) s (codes w) None = (codes w, Some (sy, []))"

lemma fixed_tokens_lexed: "list_all (\<lambda>(s, w, sy). lexes s w sy) fixed_tokens"
  by (simp add: fixed_tokens_def lexes_def jump_of_def accept_of_def ts_lex_bodies)

lemma fixed_tokens_modes: "list_all (\<lambda>(s, w, sy). s \<in> set mode_states) fixed_tokens"
  by (simp add: fixed_tokens_def mode_states_def)

subsection \<open>Identifiers and decimal integers\<close>

text \<open>How the states that read them go on; 101 is the mode of most parse states.\<close>

lemma jump_267:
  "jump_of ts_lex_switch 267 False c = (if ident_char c then ADVANCE 267 else END_STATE)"
  "jump_of ts_lex_switch 267 True 0 = END_STATE" "accept_of ts_lex_switch 267 = Some sym_identifier"
  by (auto simp: jump_of_def accept_of_def ts_lex_bodies ident_char_def ident_start_def is_letter_def
      is_digit_def)

lemma jump_253:
  "jump_of ts_lex_switch 253 False c =
     (if c = c_DQUOTE then ADVANCE 117 else if c = c_SQUOTE then ADVANCE 120
      else if ident_char c then ADVANCE 267 else END_STATE)"
  "jump_of ts_lex_switch 253 True 0 = END_STATE" "accept_of ts_lex_switch 253 = Some sym_identifier"
  by (auto simp: jump_of_def accept_of_def ts_lex_bodies ident_char_def ident_start_def is_letter_def
      is_digit_def)

lemma jump_101:
  "is_blank c \<Longrightarrow> jump_of ts_lex_switch 101 False c = SKIP 101"
  "ident_start c \<Longrightarrow> jump_of ts_lex_switch 101 False c = ADVANCE (if c = c_r then 253 else 267)"
  "is_digit c \<Longrightarrow> jump_of ts_lex_switch 101 False c = ADVANCE (if c = c_0 then 106 else 107)"
  "accept_of ts_lex_switch 101 = None"
  by (auto simp: jump_of_def accept_of_def ts_lex_bodies ident_start_def is_letter_def is_digit_def
      is_blank_def)

lemma lex_word_267:
  "lex_word ts_lex_switch inp 267 st tok = (st, Some (sym_identifier, dropWhile ident_char inp))"
  by (induction inp arbitrary: tok) (simp_all add: jump_267)

lemma lex_word_101_blanks:
  "list_all is_blank b \<Longrightarrow>
     lex_word ts_lex_switch (b @ inp) 101 (b @ inp) None = lex_word ts_lex_switch inp 101 inp None"
  by (induction b) (simp_all add: jump_101)

text \<open>An identifier stands alone when no identifier character follows, nor a quote after \<open>r\<close>.\<close>

definition ident_ends :: "code_point list \<Rightarrow> code_point list \<Rightarrow> bool" where
  "ident_ends w e =
     (case e of [] \<Rightarrow> True | c # _ \<Rightarrow>
        \<not> ident_char c \<and> (w = codes ''r'' \<longrightarrow> c \<noteq> c_DQUOTE \<and> c \<noteq> c_SQUOTE))"

lemma ident_dropWhile: "list_all ident_char w \<Longrightarrow> ident_ends v e \<Longrightarrow> dropWhile ident_char (w @ e) = e"
  by (induction w) (auto simp: ident_ends_def split: list.splits)

lemma lex_word_253:
  assumes "list_all ident_char w" and "ident_ends (c_r # w) e"
  shows "lex_word ts_lex_switch (w @ e) 253 st None = (st, Some (sym_identifier, e))"
proof (cases w)
  case Nil
  with assms(2) show ?thesis
    by (cases e) (auto simp: ident_ends_def jump_253)
next
  case (Cons c v)
  have "c \<noteq> c_DQUOTE" "c \<noteq> c_SQUOTE"
    using assms(1) Cons by (auto simp: ident_char_def ident_start_def is_letter_def is_digit_def)
  with assms Cons ident_dropWhile [of v "c_r # w" e] show ?thesis
    by (simp add: jump_253 lex_word_267)
qed

lemma lex_word_ident:
  assumes "ident w" and "ident_ends w e"
  shows "lex_word ts_lex_switch (w @ e) 101 (w @ e) None = (w @ e, Some (sym_identifier, e))"
proof -
  from assms(1) obtain c v where w: "w = c # v" "ident_start c" "list_all ident_char v"
    by (cases w) (auto simp: ident_simps)
  show ?thesis
    using w assms(2) lex_word_253 [of v e] ident_dropWhile [of v w e]
    by (auto simp: jump_101 lex_word_267)
qed

lemma jump_digits:
  "s = 106 \<or> s = 107 \<Longrightarrow> is_digit c \<Longrightarrow> jump_of ts_lex_switch s False c = ADVANCE 107"
  "s = 106 \<or> s = 107 \<Longrightarrow> c \<notin> {c_DOT, c_UNDERSCORE, c_E, c_e, c_X, c_x} \<Longrightarrow> \<not> is_digit c \<Longrightarrow>
     jump_of ts_lex_switch s False c = END_STATE"
  "s = 106 \<or> s = 107 \<Longrightarrow> jump_of ts_lex_switch s True 0 = END_STATE"
  "s = 106 \<or> s = 107 \<Longrightarrow> accept_of ts_lex_switch s = Some sym_decimal_integer_literal"
  by (auto simp: jump_of_def accept_of_def ts_lex_bodies is_digit_def)

text \<open>A decimal integer stands alone when nothing follows that continues a number.\<close>

definition digits_end :: "code_point list \<Rightarrow> bool" where
  "digits_end e =
     (case e of [] \<Rightarrow> True | c # _ \<Rightarrow> \<not> is_digit c \<and> c \<notin> {c_DOT, c_UNDERSCORE, c_E, c_e, c_X, c_x})"

lemma lex_word_digits:
  assumes "s = 106 \<or> s = 107" and "list_all is_digit w" and "digits_end e"
  shows "lex_word ts_lex_switch (w @ e) s st tok = (st, Some (sym_decimal_integer_literal, e))"
  using assms
proof (induction w arbitrary: s tok)
  case Nil
  then show ?case by (cases e) (simp_all add: jump_digits digits_end_def)
next
  case (Cons c w)
  from Cons.prems Cons.IH [of 107] show ?case by (simp add: jump_digits)
qed

lemma lex_word_integer:
  assumes "w \<noteq> []" and "list_all is_digit w" and "digits_end e"
  shows "lex_word ts_lex_switch (w @ e) 101 (w @ e) None = (w @ e, Some (sym_decimal_integer_literal, e))"
  using assms lex_word_digits [of _ "tl w" e] by (cases w) (simp_all add: jump_101)

subsection \<open>Tokens with a fixed text that stand alone\<close>

lemma lexes_run:
  assumes "tslexer ops valid rest start mark" and "valid l" and "start l = rest l"
    and "s \<in> set mode_states" and "lexes s w sy" and "rest l = codes w"
  shows "\<exists>l'. ts_lex ops s l = Some (True, l') \<and> result_symbol l' = sy \<and> start l' = codes w \<and> mark l' = Some []"
proof -
  from assms(4) mode_states_start have "ts_lex_switch s \<noteq> None"
    by (intro lex_start_switch) (simp add: list_all_iff)
  from ts_lex_word [OF assms(1-3) this] assms(5,6) show ?thesis by (auto simp: lexes_def records_def)
qed

lemma fixed_token_self:
  assumes "tslexer ops valid rest start mark" and "valid l" and "start l = rest l"
    and "(s, w, sy) \<in> set fixed_tokens" and "rest l = codes w"
  shows "s \<in> set mode_states"
    and "\<exists>l'. ts_lex ops s l = Some (True, l') \<and> result_symbol l' = sy \<and> start l' = codes w \<and> mark l' = Some []"
proof -
  show s: "s \<in> set mode_states" using fixed_tokens_modes assms(4) by (auto simp: list_all_iff)
  have "lexes s w sy" using fixed_tokens_lexed assms(4) by (auto simp: list_all_iff)
  from lexes_run [OF assms(1-3) s this assms(5)]
  show "\<exists>l'. ts_lex ops s l = Some (True, l') \<and> result_symbol l' = sy \<and> start l' = codes w \<and> mark l' = Some []" .
qed

subsection \<open>The lexer in the modes of the parser\<close>

text \<open>Tokens are not empty, with two exceptions: the text of a line comment may be.\<close>

lemma empty_lexemes:
  assumes "dart_lexeme sy []"
  shows "sy = aux_sym_comment_token1 \<or> sy = aux_sym_documentation_comment_token1"
proof -
  have "list_all (\<lambda>(sy, P). P [] \<longrightarrow> sy = aux_sym_comment_token1 \<or> sy = aux_sym_documentation_comment_token1)
      dart_lexemes"
    by (simp add: dart_lexemes_def text_rules digits_def digits_part_def hex_number_def hex_part_def
        fraction_def exponent_def sub_string_text_def escape_sequence_def octal_escape_def hex_escape_def
        brace_escape_def escaped_ident_def line_feeds_def)
  with assms show ?thesis
    using map_of_list_all [of "\<lambda>sy P. P [] \<longrightarrow> sy = aux_sym_comment_token1 \<or> sy = aux_sym_documentation_comment_token1"]
    by (auto simp: dart_lexeme_def text_of_def split: option.splits)
qed

text \<open>The main lexer only returns terminals, neither external tokens nor reserved words.\<close>

definition lexer_token :: "TSSymbol \<Rightarrow> bool" where
  "lexer_token sy \<longleftrightarrow> sy < TOKEN_COUNT - EXTERNAL_TOKEN_COUNT \<and> sy \<notin> set (map snd dart_keywords)"

lemma lexer_tokens: "list_all (\<lambda>(sy, P). lexer_token sy) dart_lexemes"
  by (simp add: dart_lexemes_def lexer_token_def dart_keywords_def)

lemma token_of_lexer_token: "token_of sy txt m \<Longrightarrow> lexer_token sy"
  using map_of_list_all [OF lexer_tokens, of sy]
  by (auto simp: token_of_def dart_lexeme_def text_of_def lexer_token_def dart_keywords_def
      split: option.splits)

text \<open>
  C6. Started in the mode of any parse state on any input, the main lexer returns. It skips white
  space only. When it returns true, the token is at the front of what follows, its text is one of
  those of the result symbol, and its end is marked right after it; or the input is at its end and
  the symbol is the end of the file. When it returns false the result symbol and the mark are
  untouched.
\<close>

theorem ts_lex_sound:
  assumes "tslexer ops valid rest start mark" and "valid l" and "start l = rest l"
    and "ts_lex_modes p = Some m" and "lex_state m \<noteq> 65535"
  shows "\<exists>r l' b. ts_lex ops (lex_state m) l = Some (r, l') \<and>
    rest l = b @ start l' \<and> list_all is_blank b \<and>
    (if r then token_of (result_symbol l') (start l') (mark l')
     else result_symbol l' = result_symbol l \<and> mark l' = mark l)"
  by (rule ts_lex_start [OF assms(1-3) mode_start [OF assms(4,5)]])

lemma ts_lex_modes_0: "ts_lex_modes 0 = Some (LM 0 1)"
  by simp

theorem ts_lex_sound_witness:
  "\<exists>r l' b. ts_lex buf_ops 0 (buf_init (codes '' >>= x'')) = Some (r, l') \<and>
     codes '' >>= x'' = b @ buf_from l' \<and> list_all is_blank b \<and>
     (if r then token_of (result_symbol l') (buf_from l') (buf_mark l')
      else result_symbol l' = 0 \<and> buf_mark l' = None)"
  using ts_lex_sound [OF buf.tslexer_axioms buf_init_simps(1) _ ts_lex_modes_0,
      unfolded buf_init_simps, OF refl, of "codes '' >>= x''"] by simp

text \<open>
  C7. Maximal munch: from every state of its switch and on every input the main lexer returns. If
  it returns true, the input it went through up to the marked end leads to a state that accepts the
  result symbol and no longer prefix of the input leads to an accepting state, or the symbol was
  accepted at the end of the input. If it returns false, no prefix leads to an accepting state.
\<close>

theorem ts_lex_maximal_munch:
  assumes "tslexer ops valid rest start mark" and "valid l" and "start l = rest l" and "s < 292"
  shows "\<exists>r l'. ts_lex ops s l = Some (r, l') \<and>
    (if r then \<exists>e. mark l' = Some e \<and>
         ((\<exists>w. rest l = w @ e \<and> munches ts_lex_switch s w e (result_symbol l')) \<or>
          e = [] \<and> eof_accepts ts_lex_switch s (rest l) (result_symbol l'))
     else \<forall>w t. prefix w (rest l) \<longrightarrow> lex_path ts_lex_switch w s = Some t \<longrightarrow>
         accept_of ts_lex_switch t = None)"
proof -
  obtain st tok where w: "lex_word ts_lex_switch (rest l) s (rest l) None = (st, tok)"
    by (cases "lex_word ts_lex_switch (rest l) s (rest l) None")
  have "ts_lex_switch s \<noteq> None"
    using map_of_upt_keys [OF lex_keys_all] assms(4) by (simp add: ts_lex_switch_def)
  from ts_lex_word [OF assms(1-3) this w] lex_word_munch [OF w] show ?thesis
    by (cases tok) (auto simp: records_def)
qed

theorem ts_lex_maximal_munch_witness:
  "\<exists>r l'. ts_lex buf_ops 101 (buf_init (codes ''ab cd'')) = Some (r, l')"
  using ts_lex_maximal_munch [OF buf.tslexer_axioms buf_init_simps(1), of "codes ''ab cd''" 101]
  by auto

text \<open>
  C12. Progress: a token the main lexer returns in the mode of a parse state is not empty, unless it
  is the end of the file, at the end of the input, or the text of a line comment or of a
  documentation line comment, the two tokens of the grammar that may be empty.
\<close>

theorem ts_lex_progress:
  assumes "tslexer ops valid rest start mark" and "valid l" and "start l = rest l"
    and "ts_lex_modes p = Some m" and "lex_state m \<noteq> 65535"
    and "ts_lex ops (lex_state m) l = Some (True, l')"
  shows "\<exists>v e. start l' = v @ e \<and> mark l' = Some e \<and>
    (v \<noteq> [] \<or>
     result_symbol l' = aux_sym_comment_token1 \<or> result_symbol l' = aux_sym_documentation_comment_token1 \<or>
     result_symbol l' = ts_builtin_sym_end \<and> dropWhile is_blank (rest l) = [])"
proof -
  from ts_lex_start [OF assms(1-3) mode_start [OF assms(4,5)]] assms(6) obtain b where
    b: "rest l = b @ start l'" "list_all is_blank b" and tok: "token_of (result_symbol l') (start l') (mark l')"
    by auto
  from tok consider (lexeme) v e where "start l' = v @ e" "mark l' = Some e" "dart_lexeme (result_symbol l') v"
    | (eof) "result_symbol l' = ts_builtin_sym_end" "start l' = []" "mark l' = Some []"
    by (auto simp: token_of_def)
  then show ?thesis
  proof cases
    case lexeme
    with empty_lexemes show ?thesis by blast
  next
    case eof
    with b have "dropWhile is_blank (rest l) = []" by (simp add: list_all_iff)
    with eof show ?thesis by auto
  qed
qed

theorem ts_lex_progress_witness:
  "\<exists>l' v e. ts_lex buf_ops 0 (buf_init (codes ''>>='')) = Some (True, l') \<and> buf_from l' = v @ e \<and> v \<noteq> []"
proof -
  have "(0, ''>>='', anon_sym_GT_GT_EQ) \<in> set fixed_tokens" by (simp add: fixed_tokens_def)
  then have w: "lex_word ts_lex_switch (codes ''>>='') 0 (codes ''>>='') None =
      (codes ''>>='', Some (anon_sym_GT_GT_EQ, []))"
    using fixed_tokens_lexed by (auto simp: list_all_iff lexes_def)
  have l: "ts_lex_switch 0 \<noteq> None" "buf_from (buf_init inp) = buf_rest (buf_init inp)" for inp
    using lex_start_switch mode_states_start by (auto simp: mode_states_def)
  from ts_lex_word [OF buf.tslexer_axioms buf_init_simps(1) l(2,1), unfolded buf_init_simps, OF w]
  obtain l' where l': "ts_lex buf_ops 0 (buf_init (codes ''>>='')) = Some (True, l')"
    "result_symbol l' = anon_sym_GT_GT_EQ"
    by (auto simp: records_def)
  from ts_lex_progress [OF buf.tslexer_axioms buf_init_simps(1) l(2) ts_lex_modes_0, of "codes ''>>=''" l'] l'
  show ?thesis by auto
qed

text \<open>
  C13. Completeness for the tokens with a fixed text: for each of the operators, delimiters, quotes
  and words of \<open>fixed_tokens\<close> there is a state the parser starts the lexer in, such that on that text
  alone the lexer returns the token's symbol and marks its end at the end of the input.
\<close>

theorem ts_lex_fixed_tokens:
  assumes "tslexer ops valid rest start mark" and "valid l" and "start l = rest l"
    and "(s, w, sy) \<in> set fixed_tokens" and "rest l = codes w"
  shows "s \<in> set mode_states \<and>
    (\<exists>l'. ts_lex ops s l = Some (True, l') \<and> result_symbol l' = sy \<and> start l' = codes w \<and> mark l' = Some [])"
  using fixed_token_self [OF assms] by blast

theorem ts_lex_fixed_tokens_witness:
  "\<exists>l'. ts_lex buf_ops 0 (buf_init (codes ''>>='')) = Some (True, l') \<and> result_symbol l' = anon_sym_GT_GT_EQ"
proof -
  have "(0, ''>>='', anon_sym_GT_GT_EQ) \<in> set fixed_tokens" by (simp add: fixed_tokens_def)
  from ts_lex_fixed_tokens [OF buf.tslexer_axioms buf_init_simps(1) _ this, of "codes ''>>=''"]
  show ?thesis by auto
qed

text \<open>
  C14. Identifiers: in the lexer state most parse states use, white space followed by an identifier
  that stands alone gives exactly that identifier, whatever comes behind it.
\<close>

theorem ts_lex_identifier:
  assumes "tslexer ops valid rest start mark" and "valid l" and "start l = rest l"
    and "rest l = b @ w @ e" and "list_all is_blank b" and "ident w" and "ident_ends w e"
  shows "\<exists>l'. ts_lex ops 101 l = Some (True, l') \<and> result_symbol l' = sym_identifier \<and>
    start l' = w @ e \<and> mark l' = Some e"
proof -
  have "ts_lex_switch 101 \<noteq> None" by (simp add: ts_lex_bodies)
  from ts_lex_word [OF assms(1-3) this] lex_word_101_blanks [OF assms(5), of "w @ e"]
    lex_word_ident [OF assms(6,7)] assms(4)
  show ?thesis by (auto simp: records_def)
qed

theorem ts_lex_identifier_witness:
  "\<exists>l'. ts_lex buf_ops 101 (buf_init (codes '' r1(x)'')) = Some (True, l') \<and>
     result_symbol l' = sym_identifier \<and> buf_from l' = codes ''r1(x)'' \<and> buf_mark l' = Some (codes ''(x)'')"
proof -
  have "ident (codes ''r1'')" "ident_ends (codes ''r1'') (codes ''(x)'')" "list_all is_blank (codes '' '')"
    by (simp_all add: ident_simps ident_ends_def ident_char_def ident_start_def is_letter_def is_digit_def
        is_blank_def)
  then show ?thesis
    using ts_lex_identifier [OF buf.tslexer_axioms buf_init_simps(1), of "codes '' r1(x)''" "codes '' ''"
        "codes ''r1''" "codes ''(x)''"] by simp
qed

text \<open>
  C15. Decimal integers: in the same state, white space followed by digits that nothing continues to
  a longer number gives a decimal integer literal with exactly these digits.
\<close>

theorem ts_lex_integer:
  assumes "tslexer ops valid rest start mark" and "valid l" and "start l = rest l"
    and "rest l = b @ w @ e" and "list_all is_blank b"
    and "w \<noteq> []" and "list_all is_digit w" and "digits_end e"
  shows "\<exists>l'. ts_lex ops 101 l = Some (True, l') \<and> result_symbol l' = sym_decimal_integer_literal \<and>
    start l' = w @ e \<and> mark l' = Some e"
proof -
  have "ts_lex_switch 101 \<noteq> None" by (simp add: ts_lex_bodies)
  from ts_lex_word [OF assms(1-3) this] lex_word_101_blanks [OF assms(5), of "w @ e"]
    lex_word_integer [OF assms(6-8)] assms(4)
  show ?thesis by (auto simp: records_def)
qed

theorem ts_lex_integer_witness:
  "\<exists>l'. ts_lex buf_ops 101 (buf_init (codes '' 042;'')) = Some (True, l') \<and>
     result_symbol l' = sym_decimal_integer_literal \<and> buf_mark l' = Some (codes '';'')"
proof -
  have "list_all is_digit (codes ''042'')" "digits_end (codes '';'')" "list_all is_blank (codes '' '')"
    by (simp_all add: digits_end_def is_digit_def is_blank_def)
  then show ?thesis
    using ts_lex_integer [OF buf.tslexer_axioms buf_init_simps(1), of "codes '' 042;''" "codes '' ''"
        "codes ''042''" "codes '';''"] by auto
qed

end
