(* ===== verification/Dart_Scanner.thy ===== *)
theory Dart_Scanner
  imports TSLexer C_Chars
begin

text \<open>
  The external scanner of the Dart grammar, \<^verbatim>\<open>scanner.c\<close>: nested block comments and the text parts
  of string literals. The scanner keeps no state between calls. Each loop is a partial function of
  the lexer; that the loops return on every input is part of the lemmas below.
\<close>

subsection \<open>The scanner\<close>

text \<open>\<^verbatim>\<open>enum TokenType\<close>: the indices into \<^verbatim>\<open>valid_symbols\<close> and the values of \<^verbatim>\<open>result_symbol\<close>.\<close>

abbreviation (input) TEMPLATE_CHARS_SINGLE :: nat where "TEMPLATE_CHARS_SINGLE \<equiv> 0"
abbreviation (input) TEMPLATE_CHARS_DOUBLE :: nat where "TEMPLATE_CHARS_DOUBLE \<equiv> 1"
abbreviation (input) TEMPLATE_CHARS_SINGLE_SINGLE :: nat where "TEMPLATE_CHARS_SINGLE_SINGLE \<equiv> 2"
abbreviation (input) TEMPLATE_CHARS_DOUBLE_SINGLE :: nat where "TEMPLATE_CHARS_DOUBLE_SINGLE \<equiv> 3"
abbreviation (input) TEMPLATE_CHARS_RAW_SLASH :: nat where "TEMPLATE_CHARS_RAW_SLASH \<equiv> 4"
abbreviation (input) BLOCK_COMMENT :: nat where "BLOCK_COMMENT \<equiv> 5"
abbreviation (input) DOCUMENTATION_BLOCK_COMMENT :: nat where "DOCUMENTATION_BLOCK_COMMENT \<equiv> 6"

text \<open>
  The life cycle functions. The payload pointer is \<^verbatim>\<open>NULL\<close> (\<open>None\<close>) and never followed; nothing is
  written to the serialization buffer.
\<close>

type_synonym payload = "unit option"

definition external_scanner_create :: payload where
  "external_scanner_create = None"

definition external_scanner_destroy :: "payload \<Rightarrow> unit" where
  "external_scanner_destroy p = ()"

definition external_scanner_reset :: "payload \<Rightarrow> payload" where
  "external_scanner_reset p = p"

definition external_scanner_serialize :: "payload \<Rightarrow> 8 word list \<Rightarrow> 32 word \<times> 8 word list" where
  "external_scanner_serialize p buffer = (0, buffer)"

definition external_scanner_deserialize :: "payload \<Rightarrow> 8 word list \<Rightarrow> 32 word \<Rightarrow> payload" where
  "external_scanner_deserialize p b n = p"

definition advance :: "'p TSLexer_scheme TSLexer_ops \<Rightarrow> 'p TSLexer_scheme \<Rightarrow> 'p TSLexer_scheme" where
  "advance ops lexer = advance_fn ops lexer False"

definition skip :: "'p TSLexer_scheme TSLexer_ops \<Rightarrow> 'p TSLexer_scheme \<Rightarrow> 'p TSLexer_scheme" where
  "skip ops lexer = advance_fn ops lexer True"

text \<open>
  The \<^verbatim>\<open>for\<close> loop of \<^verbatim>\<open>scan_multiline_comments\<close>; \<^verbatim>\<open>nesting_depth\<close> is an \<^verbatim>\<open>unsigned\<close> of 32 bits.
\<close>

partial_function (option) comment_loop ::
  "'p TSLexer_scheme TSLexer_ops \<Rightarrow> bool \<Rightarrow> bool \<Rightarrow> 32 word \<Rightarrow> 'p TSLexer_scheme
    \<Rightarrow> (bool \<times> 'p TSLexer_scheme) option" where
  "comment_loop ops documentation_comment after_star nesting_depth lexer =
     (if lookahead lexer = c_NUL then Some (False, lexer)
      else if lookahead lexer = c_STAR then
        comment_loop ops documentation_comment True nesting_depth (advance ops lexer)
      else if lookahead lexer = c_SLASH then
        (if after_star then
           (if nesting_depth - 1 = 0 then
              Some (True, (advance ops lexer)
                \<lparr>result_symbol := (if \<not> documentation_comment then BLOCK_COMMENT
                                   else DOCUMENTATION_BLOCK_COMMENT)\<rparr>)
            else comment_loop ops documentation_comment False (nesting_depth - 1) (advance ops lexer))
         else
           (if lookahead (advance ops lexer) = c_STAR then
              comment_loop ops documentation_comment False (nesting_depth + 1)
                (advance ops (advance ops lexer))
            else comment_loop ops documentation_comment False nesting_depth (advance ops lexer)))
      else comment_loop ops documentation_comment False nesting_depth (advance ops lexer))"

definition scan_multiline_comments ::
  "'p TSLexer_scheme TSLexer_ops \<Rightarrow> 'p TSLexer_scheme \<Rightarrow> (bool \<times> 'p TSLexer_scheme) option" where
  "scan_multiline_comments ops lexer =
     (let lexer = advance ops lexer in
      if lookahead lexer \<noteq> c_STAR then Some (False, lexer)
      else
        (let lexer = advance ops lexer;
             documentation_comment = (lookahead lexer = c_STAR)
         in comment_loop ops documentation_comment False 1 lexer))"

text \<open>\<^verbatim>\<open>valid_symbols\<close> is a row of \<^verbatim>\<open>EXTERNAL_TOKEN_COUNT\<close> booleans.\<close>

partial_function (option) template_loop ::
  "'p TSLexer_scheme TSLexer_ops \<Rightarrow> bool list \<Rightarrow> bool \<Rightarrow> 'p TSLexer_scheme
    \<Rightarrow> (bool \<times> 'p TSLexer_scheme) option" where
  "template_loop ops valid_symbols has_content lexer =
     (let lexer = mark_end_fn ops lexer in
      if lookahead lexer = c_SQUOTE \<or> lookahead lexer = c_DQUOTE then Some (has_content, lexer)
      else if lookahead lexer = c_LF then
        (if valid_symbols ! TEMPLATE_CHARS_DOUBLE_SINGLE \<or> valid_symbols ! TEMPLATE_CHARS_SINGLE_SINGLE
         then Some (False, lexer)
         else template_loop ops valid_symbols True (advance ops lexer))
      else if lookahead lexer = c_NUL then Some (False, lexer)
      else if lookahead lexer = c_DOLLAR then Some (has_content, lexer)
      else if lookahead lexer = c_BSLASH then
        (if valid_symbols ! TEMPLATE_CHARS_RAW_SLASH then
           template_loop ops valid_symbols True
             (advance ops (lexer\<lparr>result_symbol := TEMPLATE_CHARS_RAW_SLASH\<rparr>))
         else Some (has_content, lexer))
      else template_loop ops valid_symbols True (advance ops lexer))"

definition template_symbol :: "bool list \<Rightarrow> TSSymbol" where
  "template_symbol valid_symbols =
     (if valid_symbols ! TEMPLATE_CHARS_DOUBLE then TEMPLATE_CHARS_DOUBLE
      else if valid_symbols ! TEMPLATE_CHARS_SINGLE then TEMPLATE_CHARS_SINGLE
      else if valid_symbols ! TEMPLATE_CHARS_SINGLE_SINGLE then TEMPLATE_CHARS_SINGLE_SINGLE
      else TEMPLATE_CHARS_DOUBLE_SINGLE)"

definition scan_templates ::
  "'p TSLexer_scheme TSLexer_ops \<Rightarrow> 'p TSLexer_scheme \<Rightarrow> bool list \<Rightarrow> (bool \<times> 'p TSLexer_scheme) option"
  where
  "scan_templates ops lexer valid_symbols =
     template_loop ops valid_symbols False (lexer\<lparr>result_symbol := template_symbol valid_symbols\<rparr>)"

text \<open>
  \<^verbatim>\<open>iswspace\<close> of the C library, in the ``C'' locale, in which a program runs that never calls
  \<^verbatim>\<open>setlocale\<close>.
\<close>

definition iswspace :: "code_point \<Rightarrow> bool" where
  "iswspace c \<longleftrightarrow> c_TAB \<le> c \<and> c \<le> c_CR \<or> c = c_SPACE"

partial_function (option) skip_space ::
  "'p TSLexer_scheme TSLexer_ops \<Rightarrow> 'p TSLexer_scheme \<Rightarrow> 'p TSLexer_scheme option" where
  "skip_space ops lexer =
     (if iswspace (lookahead lexer) then skip_space ops (advance_fn ops lexer True) else Some lexer)"

definition external_scanner_scan ::
  "'p TSLexer_scheme TSLexer_ops \<Rightarrow> payload \<Rightarrow> 'p TSLexer_scheme \<Rightarrow> bool list
    \<Rightarrow> (bool \<times> 'p TSLexer_scheme) option" where
  "external_scanner_scan ops payload lexer valid_symbols =
     (if valid_symbols ! TEMPLATE_CHARS_DOUBLE \<or> valid_symbols ! TEMPLATE_CHARS_SINGLE \<or>
         valid_symbols ! TEMPLATE_CHARS_DOUBLE_SINGLE \<or> valid_symbols ! TEMPLATE_CHARS_SINGLE_SINGLE
      then scan_templates ops lexer valid_symbols
      else
        (case skip_space ops lexer of
           None \<Rightarrow> None
         | Some lexer \<Rightarrow>
             if lookahead lexer = c_SLASH then scan_multiline_comments ops lexer
             else Some (False, lexer)))"

subsection \<open>Comments: the specification\<close>

text \<open>
  The text of a block comment is read as a sequence of comment delimiters and other code points,
  from left to right; \<open>depth\<close> is the number of comments a sequence opens and does not close.
\<close>

datatype comment_token = Open | Close | Other code_point

fun comment_tokens :: "code_point list \<Rightarrow> comment_token list" where
  "comment_tokens [] = []"
| "comment_tokens [c] = [Other c]"
| "comment_tokens (c # d # cs) =
     (if c = c_SLASH \<and> d = c_STAR then Open # comment_tokens cs
      else if c = c_STAR \<and> d = c_SLASH then Close # comment_tokens cs
      else Other c # comment_tokens (d # cs))"

fun token_text :: "comment_token \<Rightarrow> code_point list" where
  "token_text Open = codes ''/*''"
| "token_text Close = codes ''*/''"
| "token_text (Other c) = [c]"

definition comment_text :: "comment_token list \<Rightarrow> code_point list" where
  "comment_text ts = concat (map token_text ts)"

fun token_depth :: "comment_token \<Rightarrow> int" where
  "token_depth Open = 1"
| "token_depth Close = - 1"
| "token_depth (Other c) = 0"

definition depth :: "comment_token list \<Rightarrow> int" where
  "depth ts = sum_list (map token_depth ts)"

text \<open>
  \<open>comment_in d ts\<close>: inside \<open>d\<close> open comments, \<open>ts\<close> closes them all at its end and not before, with
  no NUL in it. A block comment opens a comment and goes on to the token that closes it.
\<close>

definition comment_in :: "int \<Rightarrow> comment_token list \<Rightarrow> bool" where
  "comment_in d ts \<longleftrightarrow>
     d + depth ts = 0 \<and> (\<forall>n < length ts. 0 < d + depth (take n ts)) \<and> Other c_NUL \<notin> set ts"

definition block_comment :: "comment_token list \<Rightarrow> bool" where
  "block_comment ts \<longleftrightarrow> (\<exists>us. ts = Open # us \<and> comment_in 1 us)"

lemma comment_text_tokens [simp]: "comment_text (comment_tokens inp) = inp"
  by (induction inp rule: comment_tokens.induct) (simp_all add: comment_text_def)

lemma depth_simps [simp]:
  "depth [] = 0" "depth (t # ts) = token_depth t + depth ts" "depth (ts @ us) = depth ts + depth us"
  by (simp_all add: depth_def)

lemma comment_in_Nil: "comment_in d [] \<longleftrightarrow> d = 0"
  by (simp add: comment_in_def)

lemma comment_in_Cons:
  "comment_in d (t # ts) \<longleftrightarrow> 0 < d \<and> t \<noteq> Other c_NUL \<and> comment_in (d + token_depth t) ts"
  by (auto simp: comment_in_def less_Suc_eq_0_disj algebra_simps)

text \<open>The token that closes the comments, found from left to right; the tokens after it.\<close>

fun close_comment :: "nat \<Rightarrow> comment_token list \<Rightarrow> comment_token list option" where
  "close_comment d [] = None"
| "close_comment d (Open # ts) = close_comment (Suc d) ts"
| "close_comment d (Close # ts) = (if d = 1 then Some ts else close_comment (d - 1) ts)"
| "close_comment d (Other c # ts) = (if c = c_NUL then None else close_comment d ts)"

lemma comment_in_split:
  assumes "0 < d"
  shows "(\<exists>ts. t # toks = ts @ us \<and> comment_in d ts) \<longleftrightarrow>
    t \<noteq> Other c_NUL \<and> (\<exists>ts. toks = ts @ us \<and> comment_in (d + token_depth t) ts)"
proof
  assume "\<exists>ts. t # toks = ts @ us \<and> comment_in d ts"
  then obtain ts where ts: "t # toks = ts @ us" "comment_in d ts" by blast
  from ts(2) assms have "ts \<noteq> []" by (auto simp: comment_in_Nil)
  then obtain ts' where "ts = t # ts'" using ts(1) by (cases ts) auto
  with ts show "t \<noteq> Other c_NUL \<and> (\<exists>ts. toks = ts @ us \<and> comment_in (d + token_depth t) ts)"
    by (auto simp: comment_in_Cons)
next
  assume "t \<noteq> Other c_NUL \<and> (\<exists>ts. toks = ts @ us \<and> comment_in (d + token_depth t) ts)"
  then obtain ts where "t \<noteq> Other c_NUL" "toks = ts @ us" "comment_in (d + token_depth t) ts" by blast
  with assms show "\<exists>ts. t # toks = ts @ us \<and> comment_in d ts"
    by (intro exI [of _ "t # ts"]) (simp add: comment_in_Cons)
qed

lemma comment_in_0: "comment_in 0 ts \<longleftrightarrow> ts = []"
  by (cases ts) (simp_all add: comment_in_Nil comment_in_Cons)

lemma close_comment_iff:
  "0 < d \<Longrightarrow> close_comment d toks = Some us \<longleftrightarrow> (\<exists>ts. toks = ts @ us \<and> comment_in (int d) ts)"
proof (induction d toks rule: close_comment.induct)
  case (1 d)
  then show ?case by (simp add: comment_in_Nil)
next
  case (2 d ts)
  then show ?case by (simp add: comment_in_split add.commute)
next
  case (3 d ts)
  show ?case
  proof (cases "d = 1")
    case True
    then show ?thesis using comment_in_split [of 1 Close ts us] by (auto simp: comment_in_0)
  next
    case False
    with 3 show ?thesis by (simp add: comment_in_split of_nat_diff)
  qed
next
  case (4 d c ts)
  then show ?case by (simp add: comment_in_split)
qed

subsection \<open>Comments: the loop\<close>

text \<open>
  What the loop has still to read: after a star the star belongs to the next token. The depth does
  not wrap around as long as it and the number of code points left fit in 32 bits together.
\<close>

definition pending :: "bool \<Rightarrow> code_point list \<Rightarrow> comment_token list" where
  "pending after_star inp = comment_tokens ((if after_star then [c_STAR] else []) @ inp)"

lemma pending_slash:
  "pending True (c_SLASH # cs) = Close # pending False cs"
  "pending False (c_SLASH # c_STAR # cs) = Open # pending False cs"
  "c \<noteq> c_STAR \<Longrightarrow> pending False (c_SLASH # c # cs) = Other c_SLASH # pending False (c # cs)"
  "pending False [c_SLASH] = [Other c_SLASH]"
  by (simp_all add: pending_def)

lemma pending_other:
  "pending a [] = (if a then [Other c_STAR] else [])"
  "pending True (c_STAR # cs) = Other c_STAR # pending True cs"
  "pending False (c_STAR # cs) = pending True cs"
  "c \<noteq> c_STAR \<Longrightarrow> c \<noteq> c_SLASH \<Longrightarrow> pending True (c # cs) = Other c_STAR # pending False (c # cs)"
  by (simp_all add: pending_def)

lemma pending_plain:
  "c \<noteq> c_STAR \<Longrightarrow> c \<noteq> c_SLASH \<Longrightarrow> pending False (c # cs) = Other c # pending False cs"
  by (cases cs) (simp_all add: pending_def)

lemmas pending_simps = pending_slash pending_other pending_plain

text \<open>What a run of the scanner leaves behind, told by the token that closes the comment.\<close>

definition comment_result ::
  "bool \<Rightarrow> comment_token list option \<Rightarrow> TSSymbol \<Rightarrow> bool \<Rightarrow> code_point list \<Rightarrow> TSSymbol \<Rightarrow> bool" where
  "comment_result doc us sy0 r inp sy =
     (case us of
        None \<Rightarrow> \<not> r \<and> sy = sy0
      | Some ts \<Rightarrow> r \<and> inp = comment_text ts \<and>
          sy = (if doc then DOCUMENTATION_BLOCK_COMMENT else BLOCK_COMMENT))"

context tslexer
begin

lemma scanner_advance [simp]:
  assumes "valid l"
  shows "valid (advance ops l)" and "rest (advance ops l) = tl (rest l)"
    and "start (advance ops l) = start l" and "mark (advance ops l) = mark l"
    and "result_symbol (advance ops l) = result_symbol l"
  using assms by (simp_all add: advance_def)

lemma comment_loop_returns:
  assumes "valid l" and "0 < unat nd" and "unat nd + length (rest l) < 2 ^ 32"
  shows "\<exists>r l'. comment_loop ops doc a nd l = Some (r, l') \<and> valid l' \<and> start l' = start l \<and>
    mark l' = mark l \<and>
    comment_result doc (close_comment (unat nd) (pending a (rest l))) (result_symbol l) r
      (rest l') (result_symbol l')"
  using assms
proof (induction "length (rest l)" arbitrary: l nd a rule: less_induct)
  case less
  show ?case
  proof (cases "rest l")
    case Nil
    then have "lookahead l = 0" using less.prems lookahead_Nil by blast
    with Nil less.prems show ?thesis
      by (subst comment_loop.simps) (auto simp: pending_simps comment_result_def)
  next
    case (Cons c cs)
    then have la: "lookahead l = c" using less.prems lookahead_Cons by blast
    let ?go = "\<lambda>a' nd' l1. \<exists>r l'. comment_loop ops doc a' nd' l1 = Some (r, l') \<and> valid l' \<and>
        start l' = start l \<and> mark l' = mark l \<and>
        comment_result doc (close_comment (unat nd') (pending a' (rest l1))) (result_symbol l) r
          (rest l') (result_symbol l')"
    have go: "?go a' nd' l1"
      if "valid l1" "length (rest l1) < length (rest l)" "start l1 = start l" "mark l1 = mark l"
        "result_symbol l1 = result_symbol l" "0 < unat nd'" "unat nd' + length (rest l1) < 2 ^ 32"
      for a' nd' l1
      using less.hyps [OF that(2,1,6,7), of a'] that by simp
    let ?l1 = "advance ops l"
    have l1: "?go a' nd ?l1" for a'
      using less.prems Cons by (intro go) auto
    consider "c = c_NUL" | "c = c_STAR" | "c = c_SLASH" "a" "nd = 1" | "c = c_SLASH" "a" "nd \<noteq> 1"
      | ds where "c = c_SLASH" "\<not> a" "cs = c_STAR # ds" | "c = c_SLASH" "\<not> a" "\<forall>ds. cs \<noteq> c_STAR # ds"
      | "c \<noteq> c_NUL" "c \<noteq> c_STAR" "c \<noteq> c_SLASH"
      by (cases cs) blast+
    then show ?thesis
    proof cases
      case 1
      with la Cons less.prems show ?thesis
        by (subst comment_loop.simps) (cases a; auto simp: pending_simps comment_result_def)
    next
      case 2
      with la l1 [of True] Cons less.prems show ?thesis
        by (subst comment_loop.simps) (cases a; simp add: pending_simps)
    next
      case 3
      with la Cons less.prems show ?thesis
        by (subst comment_loop.simps) (auto simp: pending_simps comment_result_def pending_def)
    next
      case 4
      then have nd: "unat (nd - 1) = unat nd - 1" "unat nd \<noteq> 1" using less.prems(2)
        by (auto simp: unat_dec32 unat_eq_1 [unfolded One_nat_def])
      then have "?go False (nd - 1) ?l1"
        using less.prems Cons by (intro go) auto
      with 4 la Cons less.prems nd show ?thesis
        by (subst comment_loop.simps) (simp add: pending_simps)
    next
      case (5 ds)
      have nd: "unat (nd + 1) = Suc (unat nd)" using less.prems(3) Cons
        by (simp add: unat_inc32)
      then have "?go False (nd + 1) (advance ops ?l1)"
        using less.prems Cons 5 by (intro go) auto
      with 5 la Cons less.prems nd lookahead_Cons [of ?l1] show ?thesis
        by (subst comment_loop.simps) (simp add: pending_simps)
    next
      case 6
      have "lookahead ?l1 \<noteq> c_STAR"
        using lookahead_rest [of ?l1] less.prems Cons 6 by (auto split: list.splits)
      with 6 la l1 [of False] Cons less.prems show ?thesis
        by (subst comment_loop.simps) (cases cs; auto simp: pending_simps)
    next
      case 7
      with la l1 [of False] Cons less.prems show ?thesis
        by (subst comment_loop.simps) (cases a; simp add: pending_simps)
    qed
  qed
qed

text \<open>The whole comment, from the slash on.\<close>

lemma scan_multiline_comments_returns:
  assumes "valid l" and "rest l = c_SLASH # cs" and "length (rest l) < 2 ^ 32"
  shows "\<exists>r l'. scan_multiline_comments ops l = Some (r, l') \<and> valid l' \<and> start l' = start l \<and>
    mark l' = mark l \<and>
    comment_result (prefix (codes ''/**'') (rest l))
      (if prefix (codes ''/*'') (rest l) then close_comment 1 (comment_tokens (tl cs)) else None)
      (result_symbol l) r (rest l') (result_symbol l')"
proof -
  let ?l1 = "advance ops l" and ?l2 = "advance ops (advance ops l)"
  have v: "valid ?l1" "rest ?l1 = cs" "valid ?l2" "rest ?l2 = tl cs" using assms by simp_all
  have star: "lookahead m = c_STAR \<longleftrightarrow> (\<exists>ds. rest m = c_STAR # ds)" if "valid m" for m
    using lookahead_rest [OF that] by (auto split: list.splits)
  show ?thesis
  proof (cases "\<exists>ds. cs = c_STAR # ds")
    case False
    with assms v star [OF v(1)] show ?thesis
      by (auto simp: scan_multiline_comments_def comment_result_def prefix_def)
  next
    case True
    then obtain ds where cs: "cs = c_STAR # ds" by blast
    have doc: "prefix (codes ''/**'') (rest l) \<longleftrightarrow> lookahead ?l2 = c_STAR"
      using star [OF v(3)] v cs assms(2) by (simp add: prefix_def)
    have "scan_multiline_comments ops l = comment_loop ops (lookahead ?l2 = c_STAR) False 1 ?l2"
      using star [OF v(1)] v cs by (simp add: scan_multiline_comments_def Let_def)
    with comment_loop_returns [OF v(3), of 1 "lookahead ?l2 = c_STAR" False] assms cs v(4)
    show ?thesis unfolding doc by (simp add: pending_def)
  qed
qed

lemma skip_space_returns:
  "valid l \<Longrightarrow> \<exists>l'. skip_space ops l = Some l' \<and> valid l' \<and> rest l' = dropWhile iswspace (rest l) \<and>
     start l' = (if dropWhile iswspace (rest l) = rest l then start l else dropWhile iswspace (rest l)) \<and>
     mark l' = mark l \<and> result_symbol l' = result_symbol l"
proof (induction "rest l" arbitrary: l)
  case Nil
  then have "lookahead l = 0" by (simp add: lookahead_rest flip: Nil.hyps)
  with Nil show ?case by (subst skip_space.simps) (simp add: iswspace_def flip: Nil.hyps)
next
  case (Cons c cs)
  have la: "lookahead l = c" using Cons.prems by (simp add: lookahead_rest flip: Cons.hyps(2))
  show ?case
  proof (cases "iswspace c")
    case False
    with la Cons.prems show ?thesis by (subst skip_space.simps) (simp flip: Cons.hyps(2))
  next
    case True
    let ?l1 = "advance_fn ops l True"
    have "cs = rest ?l1" "valid ?l1" using Cons.prems by (simp_all flip: Cons.hyps(2))
    from Cons.hyps(1) [OF this] True la Cons.prems show ?thesis
      using length_dropWhile_le [of iswspace cs]
      by (subst skip_space.simps) (auto simp flip: Cons.hyps(2))
  qed
qed

end

subsection \<open>Strings: the specification\<close>

text \<open>
  The code points a template text runs over: no quote, no dollar sign, no NUL; a line feed only in
  a multi-line string, a backslash only in a raw one. The text is a token only if what stops it is
  a quote, a dollar sign or a backslash.
\<close>

definition template_char :: "bool list \<Rightarrow> code_point \<Rightarrow> bool" where
  "template_char vs c \<longleftrightarrow>
     c \<notin> {c_SQUOTE, c_DQUOTE, c_DOLLAR, c_NUL} \<and>
     (c = c_LF \<longrightarrow> \<not> vs ! TEMPLATE_CHARS_DOUBLE_SINGLE \<and> \<not> vs ! TEMPLATE_CHARS_SINGLE_SINGLE) \<and>
     (c = c_BSLASH \<longrightarrow> vs ! TEMPLATE_CHARS_RAW_SLASH)"

definition template_stop :: "code_point list \<Rightarrow> bool" where
  "template_stop inp =
     (case inp of [] \<Rightarrow> False | c # _ \<Rightarrow> c \<in> {c_SQUOTE, c_DQUOTE, c_DOLLAR, c_BSLASH})"

context tslexer
begin

lemma template_loop_returns:
  assumes "valid l"
  shows "\<exists>l'. template_loop ops vs h l =
      Some ((h \<or> takeWhile (template_char vs) (rest l) \<noteq> []) \<and>
            template_stop (dropWhile (template_char vs) (rest l)), l') \<and>
    valid l' \<and> start l' = start l \<and> rest l' = dropWhile (template_char vs) (rest l) \<and>
    mark l' = Some (rest l') \<and>
    result_symbol l' =
      (if c_BSLASH \<in> set (takeWhile (template_char vs) (rest l)) then TEMPLATE_CHARS_RAW_SLASH
       else result_symbol l)"
  using assms
proof (induction "rest l" arbitrary: l h)
  case Nil
  have "lookahead (mark_end_fn ops l) = 0"
    using Nil.prems by (simp add: lookahead_rest flip: Nil.hyps)
  with Nil.prems show ?case
    by (subst template_loop.simps) (simp add: template_stop_def flip: Nil.hyps)
next
  case (Cons c cs)
  have la: "lookahead (mark_end_fn ops l) = c"
    using Cons.prems by (simp add: lookahead_rest flip: Cons.hyps(2))
  show ?case
  proof (cases "template_char vs c")
    case False
    with la Cons.prems show ?thesis
      by (subst template_loop.simps)
        (auto simp: template_stop_def template_char_def Let_def simp flip: Cons.hyps(2))
  next
    case True
    obtain l1 where step: "template_loop ops vs h l = template_loop ops vs True l1"
      and v: "cs = rest l1" "valid l1" "start l1 = start l"
        "result_symbol l1 = (if c = c_BSLASH then TEMPLATE_CHARS_RAW_SLASH else result_symbol l)"
    proof
      let ?l0 = "if c = c_BSLASH then (mark_end_fn ops l)\<lparr>result_symbol := TEMPLATE_CHARS_RAW_SLASH\<rparr>
        else mark_end_fn ops l"
      show "template_loop ops vs h l = template_loop ops vs True (advance ops ?l0)"
        using True la by (subst template_loop.simps) (auto simp: template_char_def Let_def)
    qed (use Cons.prems in \<open>simp_all flip: Cons.hyps(2)\<close>)
    have "takeWhile (template_char vs) (rest l) = c # takeWhile (template_char vs) (rest l1)"
      "dropWhile (template_char vs) (rest l) = dropWhile (template_char vs) (rest l1)"
      using True v(1) by (simp_all flip: Cons.hyps(2))
    with Cons.hyps(1) [OF v(1,2), of True] step v(3,4) show ?thesis by auto
  qed
qed

end

end
