(* ===== verification/Dart_External.thy ===== *)
theory Dart_External
  imports Dart_Scanner Dart_Symbols
begin

text \<open>
  The tables of \<^verbatim>\<open>parser.c\<close> that connect the grammar with the external scanner, and what the scanner
  does in the rows of these tables: comments are found exactly, string texts are cut where they have
  to be, and every token returned is one the parser asked for.
\<close>

subsection \<open>The tables\<close>

abbreviation (input) ts_external_token__template_chars_double :: nat where
  "ts_external_token__template_chars_double \<equiv> 0"
abbreviation (input) ts_external_token__template_chars_single :: nat where
  "ts_external_token__template_chars_single \<equiv> 1"
abbreviation (input) ts_external_token__template_chars_double_single :: nat where
  "ts_external_token__template_chars_double_single \<equiv> 2"
abbreviation (input) ts_external_token__template_chars_single_single :: nat where
  "ts_external_token__template_chars_single_single \<equiv> 3"
abbreviation (input) ts_external_token__template_chars_raw_slash :: nat where
  "ts_external_token__template_chars_raw_slash \<equiv> 4"
abbreviation (input) ts_external_token__block_comment :: nat where
  "ts_external_token__block_comment \<equiv> 5"
abbreviation (input) ts_external_token__documentation_block_comment :: nat where
  "ts_external_token__documentation_block_comment \<equiv> 6"

definition external_row :: "nat list \<Rightarrow> bool list" where
  "external_row ts = designated EXTERNAL_TOKEN_COUNT False (map (\<lambda>t. (t, True)) ts)"

definition ts_external_scanner_symbol_map :: "TSSymbol list" where
  "ts_external_scanner_symbol_map = designated EXTERNAL_TOKEN_COUNT 0 [
     (ts_external_token__template_chars_double, sym__template_chars_double),
     (ts_external_token__template_chars_single, sym__template_chars_single),
     (ts_external_token__template_chars_double_single, sym__template_chars_double_single),
     (ts_external_token__template_chars_single_single, sym__template_chars_single_single),
     (ts_external_token__template_chars_raw_slash, sym__template_chars_raw_slash),
     (ts_external_token__block_comment, sym__block_comment),
     (ts_external_token__documentation_block_comment, sym__documentation_block_comment)]"

definition ts_external_scanner_states :: "bool list list" where
  "ts_external_scanner_states = designated 11 (external_row []) [
     (1, external_row [
       ts_external_token__template_chars_double,
       ts_external_token__template_chars_single,
       ts_external_token__template_chars_double_single,
       ts_external_token__template_chars_single_single,
       ts_external_token__template_chars_raw_slash,
       ts_external_token__block_comment,
       ts_external_token__documentation_block_comment]),
     (2, external_row [
       ts_external_token__block_comment,
       ts_external_token__documentation_block_comment]),
     (3, external_row [
       ts_external_token__template_chars_single,
       ts_external_token__block_comment,
       ts_external_token__documentation_block_comment]),
     (4, external_row [
       ts_external_token__template_chars_double,
       ts_external_token__block_comment,
       ts_external_token__documentation_block_comment]),
     (5, external_row [
       ts_external_token__template_chars_double_single,
       ts_external_token__block_comment,
       ts_external_token__documentation_block_comment]),
     (6, external_row [
       ts_external_token__template_chars_single_single,
       ts_external_token__block_comment,
       ts_external_token__documentation_block_comment]),
     (7, external_row [
       ts_external_token__template_chars_single,
       ts_external_token__template_chars_raw_slash,
       ts_external_token__block_comment,
       ts_external_token__documentation_block_comment]),
     (8, external_row [
       ts_external_token__template_chars_double,
       ts_external_token__template_chars_raw_slash,
       ts_external_token__block_comment,
       ts_external_token__documentation_block_comment]),
     (9, external_row [
       ts_external_token__template_chars_double_single,
       ts_external_token__template_chars_raw_slash,
       ts_external_token__block_comment,
       ts_external_token__documentation_block_comment]),
     (10, external_row [
       ts_external_token__template_chars_single_single,
       ts_external_token__template_chars_raw_slash,
       ts_external_token__block_comment,
       ts_external_token__documentation_block_comment])]"

text \<open>The rows written out.\<close>

lemma external_states_eq:
  "ts_external_scanner_states = [
     [False, False, False, False, False, False, False],
     [True, True, True, True, True, True, True],
     [False, False, False, False, False, True, True],
     [False, True, False, False, False, True, True],
     [True, False, False, False, False, True, True],
     [False, False, True, False, False, True, True],
     [False, False, False, True, False, True, True],
     [False, True, False, False, True, True, True],
     [True, False, False, False, True, True, True],
     [False, False, True, False, True, True, True],
     [False, False, False, True, True, True, True]]"
  by (simp add: ts_external_scanner_states_def external_row_def designated_def upt_rec)

lemma external_symbol_map_eq: "ts_external_scanner_symbol_map = [156..<163]"
  by (simp add: ts_external_scanner_symbol_map_def designated_def upt_rec)

text \<open>Does a row ask for a string text?\<close>

definition wants_template :: "bool list \<Rightarrow> bool" where
  "wants_template vs \<longleftrightarrow>
     vs ! TEMPLATE_CHARS_DOUBLE \<or> vs ! TEMPLATE_CHARS_SINGLE \<or>
     vs ! TEMPLATE_CHARS_DOUBLE_SINGLE \<or> vs ! TEMPLATE_CHARS_SINGLE_SINGLE"

subsection \<open>Comments\<close>

text \<open>
  \<open>comment_at inp ts us\<close>: the delimiters and other code points of \<open>inp\<close> are those of a block comment
  \<open>ts\<close>, with nested comments closed, followed by \<open>us\<close>.
\<close>

definition comment_at :: "code_point list \<Rightarrow> comment_token list \<Rightarrow> comment_token list \<Rightarrow> bool" where
  "comment_at inp ts us \<longleftrightarrow> comment_tokens inp = ts @ us \<and> block_comment ts"

lemma comment_at_slash:
  "comment_at (c_SLASH # c_STAR # cs) ts us \<longleftrightarrow> (\<exists>ts'. ts = Open # ts' \<and> comment_tokens cs = ts' @ us \<and> comment_in 1 ts')"
  by (auto simp: comment_at_def block_comment_def)

lemma comment_at_prefix: "comment_at inp ts us \<Longrightarrow> prefix (codes ''/*'') inp"
  by (cases inp rule: comment_tokens.cases)
    (simp_all add: comment_at_def block_comment_def split: if_splits, auto)

lemma close_comment_at:
  "(if prefix (codes ''/*'') (c_SLASH # cs) then close_comment 1 (comment_tokens (tl cs)) else None) = Some us
     \<longleftrightarrow> (\<exists>ts. comment_at (c_SLASH # cs) ts us)"
proof (cases "prefix (codes ''/*'') (c_SLASH # cs)")
  case True
  then obtain ds where "cs = c_STAR # ds" by (cases cs) auto
  with True show ?thesis by (auto simp: comment_at_slash close_comment_iff [of 1, simplified])
next
  case False
  then show ?thesis using comment_at_prefix [of "c_SLASH # cs"] by auto
qed

text \<open>Where no string text is asked for, the scanner skips white space and looks for a comment.\<close>

lemma scan_comments:
  assumes "tslexer ops valid rest start mark" and "valid l" and "start l = rest l"
    and "length (rest l) < 2 ^ 32" and "\<not> wants_template vs"
  shows "let inp = dropWhile iswspace (rest l) in
    \<exists>r l'. external_scanner_scan ops p l vs = Some (r, l') \<and> start l' = inp \<and> mark l' = mark l \<and>
      (if r then \<exists>ts us. comment_at inp ts us \<and> rest l' = comment_text us \<and>
           result_symbol l' =
             (if prefix (codes ''/**'') inp then DOCUMENTATION_BLOCK_COMMENT else BLOCK_COMMENT)
       else (\<forall>ts us. \<not> comment_at inp ts us) \<and> result_symbol l' = result_symbol l)"
proof -
  define inp where "inp = dropWhile iswspace (rest l)"
  from tslexer.skip_space_returns [OF assms(1,2)] obtain l1 where l1: "skip_space ops l = Some l1"
    "valid l1" "rest l1 = inp" "start l1 = inp" "mark l1 = mark l" "result_symbol l1 = result_symbol l"
    using assms(3) by (auto simp: inp_def)
  have scan: "external_scanner_scan ops p l vs =
      (if lookahead l1 = c_SLASH then scan_multiline_comments ops l1 else Some (False, l1))"
    using assms(5) l1(1) by (simp add: external_scanner_scan_def wants_template_def)
  have la: "lookahead l1 = (case inp of [] \<Rightarrow> 0 | c # _ \<Rightarrow> c)"
    using tslexer.lookahead_rest [OF assms(1) l1(2)] l1(3) by simp
  show ?thesis
  proof (cases "lookahead l1 = c_SLASH")
    case False
    then have "\<not> prefix (codes ''/*'') inp" using la by (auto split: list.splits)
    with comment_at_prefix have "\<not> comment_at inp ts us" for ts us by blast
    with False scan l1 show ?thesis unfolding Let_def inp_def [symmetric] by auto
  next
    case True
    then obtain cs where cs: "inp = c_SLASH # cs" using la by (cases inp) auto
    have "length inp < 2 ^ 32"
      using assms(4) length_dropWhile_le [of iswspace "rest l"] by (simp add: inp_def)
    from tslexer.scan_multiline_comments_returns [OF assms(1) l1(2), of cs] l1 cs this
    obtain r l' where r: "scan_multiline_comments ops l1 = Some (r, l')" "start l' = inp"
      "mark l' = mark l"
      "comment_result (prefix (codes ''/**'') inp)
        (if prefix (codes ''/*'') inp then close_comment 1 (comment_tokens (tl cs)) else None)
        (result_symbol l) r (rest l') (result_symbol l')"
      by auto
    let ?c = "if prefix (codes ''/*'') inp then close_comment 1 (comment_tokens (tl cs)) else None"
    have c: "?c = Some us \<longleftrightarrow> (\<exists>ts. comment_at inp ts us)" for us
      using close_comment_at [of cs us] unfolding cs .
    show ?thesis
    proof (cases ?c)
      case None
      with c have "\<not> comment_at inp ts us" for ts us by auto
      with None r True scan show ?thesis
        unfolding Let_def inp_def [symmetric] by (auto simp: comment_result_def)
    next
      case (Some us)
      with c obtain ts where "comment_at inp ts us" by auto
      with Some r True scan show ?thesis
        unfolding Let_def inp_def [symmetric] by (auto simp: comment_result_def)
    qed
  qed
qed

text \<open>Where a string text is asked for, the scanner runs over the longest one.\<close>

lemma scan_strings:
  assumes "tslexer ops valid rest start mark" and "valid l" and "wants_template vs"
  shows "let w = takeWhile (template_char vs) (rest l); e = dropWhile (template_char vs) (rest l) in
    \<exists>l'. external_scanner_scan ops p l vs = Some (w \<noteq> [] \<and> template_stop e, l') \<and>
      start l' = start l \<and> rest l' = e \<and> mark l' = Some e \<and>
      result_symbol l' = (if c_BSLASH \<in> set w then TEMPLATE_CHARS_RAW_SLASH else template_symbol vs)"
proof -
  let ?l = "l\<lparr>result_symbol := template_symbol vs\<rparr>"
  have v: "valid ?l" "rest ?l = rest l" "start ?l = start l"
    using assms(2) tslexer.symbol_valid [OF assms(1)] tslexer.symbol_rest [OF assms(1)]
      tslexer.symbol_start [OF assms(1)] by auto
  from assms(3) have "external_scanner_scan ops p l vs = template_loop ops vs False ?l"
    by (auto simp: external_scanner_scan_def wants_template_def scan_templates_def)
  with tslexer.template_loop_returns [OF assms(1) v(1), of vs False] v show ?thesis
    by (auto simp: Let_def)
qed

text \<open>
  Both together: the token the scanner finds on an input when \<open>vs\<close> are the valid symbols, none if it
  returns false.
\<close>

definition scanned :: "bool list \<Rightarrow> code_point list \<Rightarrow> nat option" where
  "scanned vs inp =
     (if wants_template vs then
        (let w = takeWhile (template_char vs) inp in
         if w \<noteq> [] \<and> template_stop (dropWhile (template_char vs) inp)
         then Some (if c_BSLASH \<in> set w then TEMPLATE_CHARS_RAW_SLASH else template_symbol vs) else None)
      else
        (let inp = dropWhile iswspace inp in
         if prefix (codes ''/*'') inp \<and> close_comment 1 (comment_tokens (drop 2 inp)) \<noteq> None
         then Some (if prefix (codes ''/**'') inp then DOCUMENTATION_BLOCK_COMMENT else BLOCK_COMMENT)
         else None))"

lemma comment_at_closed:
  "(\<exists>ts us. comment_at inp ts us) \<longleftrightarrow>
     prefix (codes ''/*'') inp \<and> close_comment 1 (comment_tokens (drop 2 inp)) \<noteq> None"
proof (cases "prefix (codes ''/*'') inp")
  case True
  then obtain cs where cs: "inp = c_SLASH # cs" by (auto simp: prefix_def)
  with True have "drop 2 inp = tl cs" by (simp add: drop_Suc numeral_2_eq_2)
  with close_comment_at [of cs] True cs show ?thesis by auto
next
  case False
  with comment_at_prefix show ?thesis by blast
qed

lemma scan_scanned:
  assumes "tslexer ops valid rest start mark" and "valid l" and "start l = rest l"
    and "length (rest l) < 2 ^ 32"
  shows "\<exists>l'. external_scanner_scan ops p l vs = Some (scanned vs (rest l) \<noteq> None, l') \<and>
    (\<forall>i. scanned vs (rest l) = Some i \<longrightarrow> result_symbol l' = i)"
proof (cases "wants_template vs")
  case True
  with scan_strings [OF assms(1,2) True, of p] show ?thesis by (auto simp: scanned_def Let_def)
next
  case False
  let ?inp = "dropWhile iswspace (rest l)"
  from scan_comments [OF assms False, of p] obtain r l' where r:
    "external_scanner_scan ops p l vs = Some (r, l')"
    "if r then \<exists>ts us. comment_at ?inp ts us \<and> rest l' = comment_text us \<and>
         result_symbol l' = (if prefix (codes ''/**'') ?inp then DOCUMENTATION_BLOCK_COMMENT else BLOCK_COMMENT)
     else (\<forall>ts us. \<not> comment_at ?inp ts us) \<and> result_symbol l' = result_symbol l"
    by (auto simp: Let_def)
  show ?thesis
  proof (cases r)
    case True
    with r comment_at_closed [of ?inp] False show ?thesis by (auto simp: scanned_def Let_def)
  next
    case no: False
    with r comment_at_closed [of ?inp] False show ?thesis by (auto simp: scanned_def Let_def)
  qed
qed

text \<open>Where string texts are asked for, only they are found.\<close>

lemma scanned_template:
  "wants_template vs \<Longrightarrow> scanned vs inp = Some i \<Longrightarrow> i = template_symbol vs \<or> i = TEMPLATE_CHARS_RAW_SLASH"
  by (auto simp: scanned_def Let_def split: if_splits)

subsection \<open>The scanner in the rows of the table\<close>

lemma external_row_cases:
  assumes "0 < i" and "i < 11"
  shows "i = 2 \<or> wants_template (ts_external_scanner_states ! i)"
proof -
  have "list_all (\<lambda>i. i = 2 \<or> wants_template (ts_external_scanner_states ! i)) [1..<11]"
    by (simp add: external_states_eq wants_template_def upt_rec)
  with assms show ?thesis by (auto simp: list_all_iff)
qed

text \<open>The tokens a row may produce are valid in it.\<close>

definition row_ok :: "bool list \<Rightarrow> bool" where
  "row_ok vs \<longleftrightarrow> length vs = EXTERNAL_TOKEN_COUNT \<and> vs ! BLOCK_COMMENT \<and> vs ! DOCUMENTATION_BLOCK_COMMENT \<and>
     (wants_template vs \<longrightarrow> vs ! template_symbol vs)"

lemma external_rows_ok: "0 < i \<Longrightarrow> i < 11 \<Longrightarrow> row_ok (ts_external_scanner_states ! i)"
proof -
  have "list_all (\<lambda>i. row_ok (ts_external_scanner_states ! i)) [1..<11]"
    by (simp add: external_states_eq row_ok_def wants_template_def template_symbol_def upt_rec)
  then show "0 < i \<Longrightarrow> i < 11 \<Longrightarrow> row_ok (ts_external_scanner_states ! i)"
    by (auto simp: list_all_iff)
qed

lemma external_scan_valid:
  assumes "tslexer ops valid rest start mark" and "valid l" and "start l = rest l"
    and "length (rest l) < 2 ^ 32" and "0 < i" and "i < 11"
  shows "\<exists>r l'. external_scanner_scan ops p l (ts_external_scanner_states ! i) = Some (r, l') \<and>
    (r \<longrightarrow> result_symbol l' < EXTERNAL_TOKEN_COUNT \<and> ts_external_scanner_states ! i ! result_symbol l')"
proof (cases "wants_template (ts_external_scanner_states ! i)")
  case False
  with scan_comments [OF assms(1-4), of "ts_external_scanner_states ! i" p] external_rows_ok [OF assms(5,6)]
  show ?thesis by (fastforce simp: Let_def row_ok_def split: if_splits)
next
  case True
  let ?vs = "ts_external_scanner_states ! i"
  have "?vs ! TEMPLATE_CHARS_RAW_SLASH" if "c_BSLASH \<in> set (takeWhile (template_char ?vs) (rest l))"
    using set_takeWhileD [OF that] by (simp add: template_char_def)
  moreover have "template_symbol ?vs < EXTERNAL_TOKEN_COUNT" by (simp add: template_symbol_def)
  ultimately show ?thesis
    using scan_strings [OF assms(1,2) True, of p] external_rows_ok [OF assms(5,6)] True
    by (auto simp: Let_def row_ok_def)
qed

text \<open>
  C8. Where only comments are valid (row 2 of \<^verbatim>\<open>ts_external_scanner_states\<close>), the external scanner
  returns on every input of fewer than \<open>2 ^ 32\<close> code points: it skips the white space in front and
  returns true exactly when a block comment with properly closed nested comments and without NUL
  stands there. It stops right behind the comment, the token starts at the comment, and the symbol
  says whether the comment opens with \<open>/**\<close>. Otherwise the result symbol is untouched.
\<close>

theorem external_scanner_comments:
  assumes "tslexer ops valid rest start mark" and "valid l" and "start l = rest l"
    and "length (rest l) < 2 ^ 32"
  shows "let inp = dropWhile iswspace (rest l) in
    \<exists>r l'. external_scanner_scan ops p l (ts_external_scanner_states ! 2) = Some (r, l') \<and>
      start l' = inp \<and> mark l' = mark l \<and>
      (if r then \<exists>ts us. comment_at inp ts us \<and> rest l' = comment_text us \<and>
           result_symbol l' =
             (if prefix (codes ''/**'') inp then DOCUMENTATION_BLOCK_COMMENT else BLOCK_COMMENT)
       else (\<forall>ts us. \<not> comment_at inp ts us) \<and> result_symbol l' = result_symbol l)"
  by (rule scan_comments [OF assms]) (simp add: external_states_eq wants_template_def)

theorem external_scanner_comments_witness:
  "\<exists>l'. external_scanner_scan buf_ops None (buf_init (codes '' /* a /** b */ c */ d''))
      (ts_external_scanner_states ! 2) = Some (True, l') \<and> result_symbol l' = BLOCK_COMMENT"
proof -
  let ?l = "buf_init (codes '' /* a /** b */ c */ d'')"
  have inp: "dropWhile iswspace (buf_rest ?l) = codes ''/* a /** b */ c */ d''"
    by (simp add: iswspace_def)
  have "comment_tokens (codes ''/* a /** b */ c */ d'') =
      (Open # map (Other \<circ> CH) '' a '' @ Open # map (Other \<circ> CH) ''* b '' @ Close #
         map (Other \<circ> CH) '' c '' @ [Close]) @ map (Other \<circ> CH) '' d''" (is "_ = ?ts @ ?us")
    by simp
  moreover have "block_comment ?ts"
    by (simp add: block_comment_def comment_in_Cons comment_in_Nil)
  ultimately have "comment_at (codes ''/* a /** b */ c */ d'') ?ts ?us"
    by (simp only: comment_at_def)
  moreover have "buf_from ?l = buf_rest ?l" "length (buf_rest ?l) < 2 ^ 32" by simp_all
  note external_scanner_comments [OF buf.tslexer_axioms buf_init_simps(1) this, of None]
  moreover have "\<not> prefix (codes ''/**'') (codes ''/* a /** b */ c */ d'')" by simp
  ultimately show ?thesis unfolding Let_def inp by (auto split: if_splits)
qed

text \<open>
  C10. Where a string text is valid (rows 1 and 3 to 10), the external scanner returns on every
  input: it runs over the longest text without quotes, dollar signs and NUL, without line feeds
  unless the string is a multi-line one and without backslashes unless it is a raw one, and marks
  the end of the token there. It returns true when the text is not empty and a quote, a dollar
  sign or a backslash follows, not when the line or the input ends there. The symbol is the one
  for a raw text when there is a backslash in it, and otherwise the one of the row.
\<close>

theorem external_scanner_strings:
  assumes "tslexer ops valid rest start mark" and "valid l" and "0 < i" and "i < 11" and "i \<noteq> 2"
  shows "let vs = ts_external_scanner_states ! i;
      w = takeWhile (template_char vs) (rest l); e = dropWhile (template_char vs) (rest l) in
    \<exists>l'. external_scanner_scan ops p l vs = Some (w \<noteq> [] \<and> template_stop e, l') \<and>
      start l' = start l \<and> rest l' = e \<and> mark l' = Some e \<and>
      result_symbol l' = (if c_BSLASH \<in> set w then TEMPLATE_CHARS_RAW_SLASH else template_symbol vs)"
  using scan_strings [OF assms(1,2), of "ts_external_scanner_states ! i" p]
    external_row_cases [OF assms(3,4)] assms(5)
  unfolding Let_def by blast

theorem external_scanner_strings_witness:
  "\<exists>l'. external_scanner_scan buf_ops None (buf_init (codes ''ab$c''))
      (ts_external_scanner_states ! 4) = Some (True, l') \<and> buf_mark l' = Some (codes ''$c'') \<and>
      result_symbol l' = ts_external_token__template_chars_double"
proof -
  let ?vs = "ts_external_scanner_states ! 4" and ?l = "buf_init (codes ''ab$c'')"
  have tc: "takeWhile (template_char ?vs) (buf_rest ?l) = codes ''ab''"
    "dropWhile (template_char ?vs) (buf_rest ?l) = codes ''$c''"
    "template_symbol ?vs = ts_external_token__template_chars_double"
    "template_stop (codes ''$c'')"
    by (simp_all add: external_states_eq template_char_def template_symbol_def template_stop_def)
  show ?thesis
    using external_scanner_strings [OF buf.tslexer_axioms buf_init_simps(1), of 4 "codes ''ab$c''" None]
    unfolding Let_def tc by (auto simp: tc(4) [simplified])
qed

text \<open>
  C11. The external scanner never returns a token the parser did not ask for: in every row of
  \<^verbatim>\<open>ts_external_scanner_states\<close> but the first, which stands for ``no external token'', it returns,
  and the result symbol of a successful scan is valid in the row. The two enumerations that name
  the tokens differently (\<^verbatim>\<open>TokenType\<close> and \<^verbatim>\<open>ts_external_scanner_symbol_identifiers\<close>) do no harm.
\<close>

theorem external_scanner_valid:
  assumes "tslexer ops valid rest start mark" and "valid l" and "start l = rest l"
    and "length (rest l) < 2 ^ 32" and "0 < i" and "i < 11"
  shows "\<exists>r l'. external_scanner_scan ops p l (ts_external_scanner_states ! i) = Some (r, l') \<and>
    (r \<longrightarrow> result_symbol l' < EXTERNAL_TOKEN_COUNT \<and> ts_external_scanner_states ! i ! result_symbol l')"
  by (rule external_scan_valid [OF assms])

theorem external_scanner_valid_witness:
  "\<exists>r l'. external_scanner_scan buf_ops None (buf_init (codes ''a'')) (ts_external_scanner_states ! 7) =
     Some (r, l') \<and> (r \<longrightarrow> result_symbol l' < EXTERNAL_TOKEN_COUNT \<and> ts_external_scanner_states ! 7 ! result_symbol l')"
proof -
  have "buf_from (buf_init (codes ''a'')) = buf_rest (buf_init (codes ''a''))"
    "length (buf_rest (buf_init (codes ''a''))) < 2 ^ 32" by simp_all
  from external_scanner_valid [OF buf.tslexer_axioms buf_init_simps(1) this, of 7 None]
  show ?thesis by simp
qed

end
