(* ===== verification/Dart_Expect.thy ===== *)
theory Dart_Expect
  imports Dart_Lexer Dart_External
begin

text \<open>
  What the lexers can deliver in each lexer mode. \<open>lexed_tokens\<close> has, for the states the main lexer is
  started in, a text for every terminal the parser expects there, and \<open>captured_words\<close> the reserved
  words, which the main lexer takes for identifiers before the keyword lexer recognises them. The
  lists are checked by running the lexers; \<open>expects\<close> is the property they establish.
\<close>

subsection \<open>The steps of the main lexer the texts need\<close>

definition mode_jumps_1 :: "(TSStateId \<times> (code_point \<times> TSStateId) list) list" where
  "mode_jumps_1 = [
     (0, [(33, 217), (34, 112), (35, 105), (36, 119), (37, 208), (38, 189), (39, 114), (40, 140), (41, 141), (42, 204), (43, 198), (44, 137), (45, 215), (46, 225), (47, 206), (48, 106), (58, 139), (59, 234), (60, 174), (61, 145), (62, 180), (63, 164), (64, 236), (70, 267), (91, 136), (92, 85), (93, 138), (94, 187), (97, 261), (98, 267), (99, 267), (100, 267), (101, 267), (102, 267), (103, 267), (104, 267), (105, 267), (108, 267), (109, 267), (110, 267), (111, 267), (112, 255), (114, 253), (115, 265), (116, 267), (118, 267), (119, 267), (121, 267), (123, 123), (124, 184), (125, 124), (126, 219)]),
     (1, [(10, 248), (47, 42)]), (2, [(47, 245), (97, 247)]),
     (3, [(33, 217), (34, 112), (35, 104), (37, 207), (38, 188), (39, 114), (40, 140), (42, 203), (43, 197), (44, 137), (45, 214), (46, 227), (47, 205), (48, 106), (58, 139), (59, 234), (60, 175), (61, 143), (62, 181), (63, 165), (64, 236), (70, 267), (91, 136), (94, 186), (97, 262), (98, 267), (99, 267), (100, 267), (101, 267), (102, 267), (103, 267), (104, 267), (105, 267), (108, 267), (110, 267), (114, 253), (115, 267), (116, 267), (118, 267), (119, 267), (121, 267), (123, 123), (124, 185), (125, 124), (126, 220)]),
     (4, [(33, 217), (34, 112), (35, 104), (39, 114), (40, 140), (41, 141), (43, 48), (44, 137), (45, 214), (46, 51), (47, 42), (48, 106), (58, 139), (60, 177), (62, 179), (63, 162), (64, 236), (70, 267), (91, 136), (93, 138), (97, 267), (99, 267), (102, 267), (105, 267), (108, 267), (110, 267), (114, 253), (115, 267), (116, 267), (118, 267), (123, 123), (126, 218)]),
     (5, [(33, 217), (34, 112), (37, 207), (38, 188), (39, 114), (40, 140), (41, 141), (42, 203), (43, 196), (44, 137), (46, 224), (47, 205), (58, 139), (60, 175), (61, 57), (62, 181), (63, 169), (91, 136), (93, 138), (94, 186), (97, 262), (105, 267), (114, 253), (119, 267), (124, 185), (125, 124), (126, 53)]),
     (6, [(33, 217), (34, 112), (37, 207), (38, 188), (39, 114), (40, 140), (41, 141), (42, 203), (43, 196), (44, 137), (46, 226), (47, 205), (58, 139), (59, 234), (60, 175), (61, 144), (62, 181), (63, 165), (70, 267), (91, 136), (93, 138), (94, 186), (97, 262), (99, 267), (100, 267), (101, 267), (104, 267), (105, 267), (114, 253), (115, 267), (119, 267), (123, 123), (124, 185), (125, 124), (126, 53)]),
     (7, [(33, 217), (34, 112), (37, 207), (38, 188), (39, 114), (40, 140), (42, 203), (43, 196), (44, 137), (46, 226), (47, 205), (59, 234), (60, 175), (61, 144), (62, 181), (63, 165), (70, 267), (91, 136), (94, 186), (97, 261), (105, 267), (114, 253), (115, 265), (123, 123), (124, 185), (126, 53)]),
     (8, [(33, 217), (37, 208), (38, 189), (40, 140), (41, 141), (42, 204), (43, 198), (44, 137), (45, 200), (46, 224), (47, 206), (58, 139), (60, 174), (61, 144), (62, 180), (63, 168), (91, 136), (93, 138), (94, 187), (97, 262), (105, 267), (119, 267), (124, 184), (125, 124), (126, 52)]),
     (9, [(33, 217), (37, 208), (38, 189), (40, 140), (41, 141), (42, 204), (43, 198), (44, 137), (45, 200), (46, 226), (47, 206), (58, 139), (59, 234), (60, 174), (61, 144), (62, 180), (63, 164), (70, 267), (91, 136), (93, 138), (94, 187), (97, 262), (99, 267), (101, 267), (103, 267), (105, 267), (115, 267), (116, 267), (119, 267), (124, 184), (125, 124), (126, 52)]),
     (10, [(33, 217), (37, 208), (38, 189), (40, 140), (41, 141), (42, 204), (43, 201), (44, 137), (45, 202), (46, 226), (47, 206), (58, 139), (59, 234), (60, 174), (61, 144), (62, 180), (63, 164), (91, 136), (93, 138), (94, 187), (97, 262), (99, 267), (101, 267), (105, 267), (119, 267), (124, 184), (125, 124), (126, 52)]),
     (11, [(33, 217), (37, 208), (38, 189), (40, 140), (42, 204), (43, 198), (44, 137), (45, 200), (46, 226), (47, 206), (59, 234), (60, 174), (61, 144), (62, 180), (63, 164), (91, 136), (94, 187), (97, 261), (105, 267), (115, 265), (123, 123), (124, 184), (126, 52)]),
     (12, [(33, 217), (37, 208), (38, 189), (40, 140), (42, 204), (43, 201), (44, 137), (45, 202), (46, 226), (47, 206), (59, 234), (60, 174), (61, 144), (62, 180), (63, 164), (91, 136), (94, 187), (97, 261), (105, 267), (115, 265), (123, 123), (124, 184), (126, 52)]),
     (13, [(33, 217), (37, 207), (38, 188), (40, 140), (41, 141), (42, 203), (43, 197), (44, 137), (46, 224), (47, 205), (58, 139), (60, 175), (61, 57), (62, 181), (63, 169), (91, 136), (93, 138), (94, 186), (97, 262), (105, 267), (119, 267), (124, 185), (125, 124), (126, 53)]),
     (14, [(33, 217), (37, 207), (38, 188), (40, 140), (41, 141), (42, 203), (43, 197), (44, 137), (46, 226), (47, 205), (58, 139), (59, 234), (60, 175), (61, 57), (62, 181), (63, 165), (91, 136), (93, 138), (94, 186), (97, 262), (99, 267), (101, 267), (105, 267), (119, 267), (124, 185), (125, 124), (126, 53)]),
     (15, [(33, 217), (37, 207), (38, 188), (40, 140), (42, 203), (43, 197), (44, 137), (46, 226), (47, 205), (59, 234), (60, 175), (61, 57), (62, 181), (63, 165), (91, 136), (94, 186), (97, 261), (105, 267), (115, 265), (123, 123), (124, 185), (126, 53)]),
     (16, [(33, 244)]),
     (17, [(33, 216), (34, 112), (36, 118), (38, 37), (39, 113), (41, 141), (44, 137), (47, 42), (61, 142), (63, 162), (92, 85), (93, 138), (97, 83), (124, 89), (125, 124)]),
     (19, [(33, 216), (34, 112), (37, 207), (38, 188), (39, 114), (40, 140), (41, 141), (42, 203), (43, 196), (44, 137), (46, 224), (47, 205), (58, 139), (60, 175), (61, 63), (62, 181), (63, 162), (91, 73), (93, 138), (94, 186), (97, 262), (114, 253), (119, 267), (124, 185), (125, 124), (126, 220)]),
     (20, [(33, 216), (34, 111), (36, 118), (39, 114), (40, 140), (44, 137), (46, 226), (47, 42), (59, 234), (60, 173), (61, 71), (63, 163), (91, 136), (92, 85), (97, 84), (115, 86), (123, 123)]),
     (22, [(33, 216), (37, 58), (38, 59), (40, 140), (41, 141), (42, 60), (43, 61), (44, 137), (45, 62), (46, 226), (47, 43), (58, 139), (59, 234), (60, 176), (61, 146), (62, 72), (63, 166), (91, 136), (93, 138), (94, 64), (97, 263), (99, 267), (101, 267), (110, 267), (115, 265), (123, 123), (124, 65), (125, 124), (126, 55)]),
     (23, [(33, 216), (37, 58), (38, 59), (40, 140), (41, 141), (42, 60), (43, 61), (44, 137), (45, 62), (46, 226), (47, 43), (58, 139), (59, 234), (60, 176), (61, 146), (62, 72), (63, 166), (91, 136), (93, 138), (94, 64), (99, 267), (101, 267), (124, 65), (125, 124), (126, 55)]),
     (24, [(33, 216), (38, 37), (40, 140), (41, 141), (44, 137), (46, 224), (47, 42), (58, 139), (60, 173), (61, 146), (63, 162), (70, 267), (93, 138), (97, 262), (105, 267), (119, 267), (124, 89), (125, 124)]),
     (25, [(33, 56), (34, 112), (35, 104), (39, 114), (40, 140), (41, 141), (44, 137), (45, 213), (46, 51), (47, 42), (48, 106), (58, 139), (60, 177), (62, 179), (64, 236), (70, 267), (91, 136), (93, 138), (97, 267), (99, 267), (100, 267), (102, 267), (110, 267), (114, 253), (116, 267), (118, 267), (123, 123), (125, 124)]),
     (26, [(33, 56), (37, 207), (38, 188), (40, 140), (41, 141), (42, 203), (43, 196), (44, 137), (46, 224), (47, 205), (58, 139), (60, 175), (61, 57), (62, 181), (63, 171), (70, 267), (93, 138), (94, 186), (97, 262), (105, 267), (119, 267), (124, 185), (125, 124), (126, 53)]),
     (27, [(33, 56), (37, 207), (38, 188), (40, 140), (41, 141), (42, 203), (43, 196), (44, 137), (46, 226), (47, 205), (58, 139), (59, 234), (60, 175), (61, 57), (62, 181), (63, 170), (70, 267), (91, 136), (93, 138), (94, 186), (97, 262), (99, 267), (101, 267), (105, 267), (124, 185), (125, 124), (126, 53)]),
     (28, [(33, 56), (37, 207), (38, 188), (40, 140), (42, 203), (43, 196), (44, 137), (46, 226), (47, 205), (59, 234), (60, 175), (61, 57), (62, 181), (63, 170), (70, 267), (94, 186), (97, 261), (105, 267), (115, 265), (123, 123), (124, 185), (126, 53)]),
     (29, [(34, 112), (36, 118), (39, 113), (47, 130), (48, 125), (92, 132)]), (30, [(34, 115)]),
     (31, [(34, 121)]), (32, [(34, 111), (36, 118), (39, 114), (47, 130), (48, 125), (92, 132)]),
     (33, [(34, 111), (36, 118), (39, 113), (47, 42), (92, 85)]),
     (35, [(34, 111), (36, 118), (39, 113), (47, 130), (48, 125), (92, 132)]), (37, [(38, 250)]),
     (38, [(38, 37), (40, 140), (41, 141), (44, 137), (46, 224), (47, 42), (58, 139), (59, 234), (60, 173), (61, 146), (62, 178), (63, 162), (64, 236), (70, 267), (91, 136), (93, 138), (97, 267), (98, 267), (99, 267), (101, 267), (102, 267), (103, 267), (105, 267), (108, 267), (109, 267), (111, 267), (112, 267), (114, 267), (115, 267), (116, 267), (118, 267), (119, 267), (123, 123), (124, 89), (125, 124)]),
     (39, [(39, 116)]), (40, [(39, 122)]),
     (41, [(41, 141), (44, 137), (47, 42), (58, 139), (59, 234), (61, 146), (63, 162), (70, 267), (93, 138), (97, 263), (103, 267), (110, 267), (115, 265), (116, 267), (123, 123), (125, 124)]),
     (42, [(42, 278), (47, 270)]), (43, [(42, 278), (47, 270), (61, 150)]), (44, [(42, 243)]),
     (45, [(42, 283), (47, 47)]), (47, [(42, 279), (47, 269)]), (48, [(43, 211)])]"

definition mode_jumps_2 :: "(TSStateId \<times> (code_point \<times> TSStateId) list) list" where
  "mode_jumps_2 = [
     (49, [(46, 212)]), (50, [(46, 233)]), (51, [(46, 49), (48, 109)]), (52, [(47, 210)]),
     (53, [(47, 209)]), (54, [(47, 130), (48, 125), (97, 268), (123, 123)]), (55, [(47, 69)]),
     (56, [(61, 172)]), (57, [(62, 235)]), (58, [(61, 151)]), (59, [(61, 156)]),
     (60, [(61, 149)]), (61, [(61, 147)]), (62, [(61, 148)]), (63, [(61, 237), (62, 235)]),
     (64, [(61, 157)]), (65, [(61, 158)]), (66, [(61, 153)]), (67, [(61, 154), (62, 70)]),
     (68, [(61, 159)]), (69, [(61, 152)]), (70, [(61, 155)]), (71, [(62, 235)]),
     (72, [(62, 67)]), (73, [(93, 238)]), (77, [(99, 44)]), (78, [(99, 240)]),
     (79, [(102, 249)]), (80, [(110, 77)]), (81, [(110, 78)]), (82, [(111, 79)]),
     (83, [(115, 221)]), (84, [(115, 87)]), (85, [(97, 133)]), (86, [(121, 80)]),
     (87, [(121, 81)]), (89, [(124, 251)]), (95, [(97, 108)]),
     (100, [(33, 216), (34, 112), (35, 16), (39, 114), (40, 140), (41, 141), (44, 137), (46, 224), (47, 42), (58, 139), (59, 234), (60, 173), (61, 142), (62, 178), (63, 167), (64, 236), (70, 267), (91, 136), (93, 138), (97, 267), (98, 267), (99, 267), (101, 267), (102, 267), (103, 267), (105, 267), (108, 267), (109, 267), (112, 255), (114, 253), (115, 267), (116, 267), (118, 267), (125, 124)]),
     (101, [(33, 216), (34, 112), (35, 104), (38, 37), (39, 114), (40, 140), (41, 141), (42, 203), (43, 48), (44, 137), (45, 214), (46, 51), (47, 42), (48, 106), (58, 139), (59, 234), (60, 173), (61, 146), (62, 178), (63, 162), (64, 236), (70, 267), (91, 136), (93, 138), (97, 267), (98, 267), (99, 267), (100, 267), (101, 267), (102, 267), (103, 267), (104, 267), (105, 267), (108, 267), (109, 267), (110, 267), (111, 267), (112, 267), (114, 253), (115, 267), (116, 267), (118, 267), (119, 267), (121, 267), (123, 123), (124, 89), (125, 124), (126, 218)]),
     (102, [(33, 216), (34, 112), (35, 104), (38, 37), (39, 114), (40, 140), (41, 141), (43, 48), (44, 137), (45, 214), (46, 228), (47, 42), (48, 106), (58, 139), (59, 234), (60, 173), (61, 63), (62, 178), (63, 167), (64, 236), (70, 267), (91, 136), (93, 138), (97, 267), (98, 267), (99, 267), (100, 267), (101, 267), (102, 267), (103, 267), (105, 267), (108, 267), (109, 267), (110, 267), (111, 267), (114, 253), (115, 267), (116, 267), (118, 267), (119, 267), (121, 267), (123, 123), (124, 89), (125, 124), (126, 218)]),
     (105, [(33, 244)]), (106, [(120, 95)]), (112, [(34, 30)])]"

definition mode_jumps_3 :: "(TSStateId \<times> (code_point \<times> TSStateId) list) list" where
  "mode_jumps_3 = [
     (114, [(39, 39)]), (117, [(34, 31)]), (120, [(39, 40)]), (130, [(42, 278), (47, 270)]),
     (132, [(97, 133)]), (144, [(62, 235)]), (145, [(61, 237), (62, 235)]), (146, [(62, 235)]),
     (161, [(61, 159)]), (163, [(46, 230)]), (164, [(46, 230), (63, 161)]),
     (165, [(46, 230), (63, 160)]), (166, [(46, 230), (63, 68)]), (167, [(46, 229)]),
     (168, [(46, 229), (63, 161)]), (169, [(46, 229), (63, 160)]), (170, [(46, 50), (63, 160)]),
     (171, [(63, 160)]), (174, [(60, 191), (61, 182)]), (175, [(60, 190), (61, 182)]),
     (176, [(60, 66)]), (177, [(61, 182)]), (179, [(61, 183)]), (180, [(61, 183), (62, 192)]),
     (181, [(61, 183), (62, 193)]), (184, [(61, 158), (124, 251)]), (185, [(124, 251)]),
     (187, [(61, 157)]), (188, [(38, 250)]), (189, [(38, 250), (61, 156)]), (191, [(61, 153)]),
     (192, [(61, 154), (62, 195)]), (193, [(62, 194)]), (195, [(61, 155)]), (197, [(43, 211)]),
     (198, [(43, 211), (61, 147)]), (200, [(61, 148)]), (201, [(61, 147)]), (202, [(61, 148)]),
     (204, [(61, 149)]), (205, [(42, 278), (47, 270)]), (206, [(42, 278), (47, 270), (61, 150)]),
     (208, [(61, 151)]), (210, [(61, 152)])]"

definition mode_jumps_4 :: "(TSStateId \<times> (code_point \<times> TSStateId) list) list" where
  "mode_jumps_4 = [
     (215, [(61, 148)]), (217, [(61, 172)]), (219, [(47, 210)]), (220, [(47, 209)]),
     (222, [(115, 267), (121, 259)]), (223, [(115, 267)]), (225, [(46, 232), (48, 109)]),
     (226, [(46, 231)]), (227, [(46, 231), (48, 109)]), (228, [(48, 109)]), (230, [(46, 233)]),
     (232, [(46, 212)]), (238, [(61, 239)]), (240, [(42, 242)]), (241, [(42, 242)]),
     (245, [(42, 280), (47, 271)]), (252, [(32, 82)]), (253, [(34, 117), (39, 120), (101, 267)]),
     (254, [(42, 243)]), (255, [(97, 260)]), (256, [(99, 254)]), (257, [(99, 241)]),
     (258, [(110, 256)]), (259, [(110, 257)]), (260, [(114, 264)]),
     (261, [(98, 267), (115, 222), (119, 267)]), (262, [(115, 223), (119, 267)]),
     (263, [(115, 266)]), (264, [(116, 252)]),
     (265, [(101, 267), (104, 267), (116, 267), (117, 267), (119, 267), (121, 258)]),
     (266, [(121, 259)]),
     (267, [(97, 267), (98, 267), (99, 267), (100, 267), (101, 267), (102, 267), (104, 267), (105, 267), (107, 267), (108, 267), (109, 267), (110, 267), (111, 267), (112, 267), (113, 267), (114, 267), (115, 267), (116, 267), (117, 267), (118, 267), (119, 267), (120, 267), (121, 267)]),
     (269, [(47, 285)]), (270, [(47, 284)]), (271, [(47, 286)]), (272, [(47, 287)]),
     (273, [(47, 288)]), (274, [(42, 282), (47, 273)]), (275, [(47, 274)]),
     (276, [(32, 275), (97, 277)]), (289, [(42, 281), (47, 272)]),
     (290, [(47, 289), (97, 291)])]"

definition steps_ok :: "TSStateId \<Rightarrow> (code_point \<times> TSStateId) list \<Rightarrow> bool" where
  "steps_ok s es \<longleftrightarrow> list_all (\<lambda>(c, t). jump_of ts_lex_switch s False c = ADVANCE t) es"

lemma mode_jumps:
  "list_all (\<lambda>(s, es). steps_ok s es) mode_jumps_1"
  "list_all (\<lambda>(s, es). steps_ok s es) mode_jumps_2"
  "list_all (\<lambda>(s, es). steps_ok s es) mode_jumps_3"
  "list_all (\<lambda>(s, es). steps_ok s es) mode_jumps_4"
  by (simp_all add: steps_ok_def jump_of_def ts_lex_bodies mode_jumps_1_def mode_jumps_2_def mode_jumps_3_def mode_jumps_4_def)

lemmas mode_jump_eqs =
  mode_jumps(1) [unfolded mode_jumps_1_def steps_ok_def list_all_tens prod.case One_nat_def]
  mode_jumps(2) [unfolded mode_jumps_2_def steps_ok_def list_all_tens prod.case One_nat_def]
  mode_jumps(3) [unfolded mode_jumps_3_def steps_ok_def list_all_tens prod.case One_nat_def]
  mode_jumps(4) [unfolded mode_jumps_4_def steps_ok_def list_all_tens prod.case One_nat_def]

definition mode_ends :: "(TSStateId \<times> lex_jump \<times> TSSymbol option) list" where
  "mode_ends = [
     (0, ADVANCE 103, None), (1, END_STATE, None), (2, END_STATE, None), (3, END_STATE, None),
     (4, END_STATE, None), (5, END_STATE, None), (6, END_STATE, None), (7, END_STATE, None),
     (8, END_STATE, None), (9, END_STATE, None), (10, END_STATE, None), (11, END_STATE, None),
     (12, END_STATE, None), (13, END_STATE, None), (14, END_STATE, None), (15, END_STATE, None),
     (16, END_STATE, None), (17, END_STATE, None), (19, END_STATE, None), (20, END_STATE, None),
     (22, END_STATE, None), (23, END_STATE, None), (24, END_STATE, None), (25, END_STATE, None),
     (26, END_STATE, None), (27, END_STATE, None), (28, END_STATE, None), (29, END_STATE, None),
     (30, END_STATE, None), (31, END_STATE, None), (32, END_STATE, None), (33, END_STATE, None),
     (35, END_STATE, None), (37, END_STATE, None), (38, END_STATE, None), (39, END_STATE, None),
     (40, END_STATE, None), (41, END_STATE, None), (42, END_STATE, None), (43, END_STATE, None),
     (44, END_STATE, None), (45, END_STATE, None), (47, END_STATE, None), (48, END_STATE, None),
     (49, END_STATE, None), (50, END_STATE, None), (51, END_STATE, None), (52, END_STATE, None),
     (53, END_STATE, None), (54, END_STATE, None), (55, END_STATE, None), (56, END_STATE, None),
     (57, END_STATE, None), (58, END_STATE, None), (59, END_STATE, None), (60, END_STATE, None),
     (61, END_STATE, None), (62, END_STATE, None), (63, END_STATE, None), (64, END_STATE, None),
     (65, END_STATE, None), (66, END_STATE, None), (67, END_STATE, None), (68, END_STATE, None),
     (69, END_STATE, None), (70, END_STATE, None), (71, END_STATE, None), (72, END_STATE, None),
     (73, END_STATE, None), (77, END_STATE, None), (78, END_STATE, None), (79, END_STATE, None),
     (80, END_STATE, None), (81, END_STATE, None), (82, END_STATE, None), (83, END_STATE, None),
     (84, END_STATE, None), (85, END_STATE, None), (86, END_STATE, None), (87, END_STATE, None),
     (89, END_STATE, None), (95, END_STATE, None), (100, ADVANCE 103, None),
     (101, ADVANCE 103, None), (102, ADVANCE 103, None),
     (103, END_STATE, Some ts_builtin_sym_end), (104, END_STATE, Some anon_sym_POUND),
     (105, END_STATE, Some anon_sym_POUND), (106, END_STATE, Some sym_decimal_integer_literal),
     (108, END_STATE, Some sym_hex_integer_literal),
     (109, END_STATE, Some sym_decimal_floating_point_literal),
     (111, END_STATE, Some anon_sym_DQUOTE), (112, END_STATE, Some anon_sym_DQUOTE),
     (113, END_STATE, Some anon_sym_SQUOTE), (114, END_STATE, Some anon_sym_SQUOTE),
     (115, END_STATE, Some anon_sym_DQUOTE_DQUOTE_DQUOTE),
     (116, END_STATE, Some anon_sym_SQUOTE_SQUOTE_SQUOTE),
     (117, END_STATE, Some anon_sym_r_DQUOTE), (118, END_STATE, Some anon_sym_DOLLAR),
     (119, END_STATE, Some anon_sym_DOLLAR), (120, END_STATE, Some anon_sym_r_SQUOTE),
     (121, END_STATE, Some anon_sym_r_DQUOTE_DQUOTE_DQUOTE),
     (122, END_STATE, Some anon_sym_r_SQUOTE_SQUOTE_SQUOTE),
     (123, END_STATE, Some anon_sym_LBRACE), (124, END_STATE, Some anon_sym_RBRACE),
     (125, END_STATE, Some aux_sym__sub_string_test_token1),
     (130, END_STATE, Some aux_sym__sub_string_test_token1),
     (132, END_STATE, Some aux_sym__sub_string_test_token1),
     (133, END_STATE, Some sym__unused_escape_sequence), (136, END_STATE, Some anon_sym_LBRACK),
     (137, END_STATE, Some anon_sym_COMMA), (138, END_STATE, Some anon_sym_RBRACK),
     (139, END_STATE, Some anon_sym_COLON), (140, END_STATE, Some anon_sym_LPAREN),
     (141, END_STATE, Some anon_sym_RPAREN), (142, END_STATE, Some anon_sym_EQ),
     (143, END_STATE, Some anon_sym_EQ), (144, END_STATE, Some anon_sym_EQ),
     (145, END_STATE, Some anon_sym_EQ), (146, END_STATE, Some anon_sym_EQ),
     (147, END_STATE, Some anon_sym_PLUS_EQ), (148, END_STATE, Some anon_sym_DASH_EQ),
     (149, END_STATE, Some anon_sym_STAR_EQ), (150, END_STATE, Some anon_sym_SLASH_EQ),
     (151, END_STATE, Some anon_sym_PERCENT_EQ), (152, END_STATE, Some anon_sym_TILDE_SLASH_EQ),
     (153, END_STATE, Some anon_sym_LT_LT_EQ), (154, END_STATE, Some anon_sym_GT_GT_EQ),
     (155, END_STATE, Some anon_sym_GT_GT_GT_EQ), (156, END_STATE, Some anon_sym_AMP_EQ),
     (157, END_STATE, Some anon_sym_CARET_EQ), (158, END_STATE, Some anon_sym_PIPE_EQ),
     (159, END_STATE, Some anon_sym_QMARK_QMARK_EQ), (160, END_STATE, Some anon_sym_QMARK_QMARK),
     (161, END_STATE, Some anon_sym_QMARK_QMARK), (162, END_STATE, Some anon_sym_QMARK),
     (163, END_STATE, Some anon_sym_QMARK), (164, END_STATE, Some anon_sym_QMARK),
     (165, END_STATE, Some anon_sym_QMARK), (166, END_STATE, Some anon_sym_QMARK),
     (167, END_STATE, Some anon_sym_QMARK), (168, END_STATE, Some anon_sym_QMARK),
     (169, END_STATE, Some anon_sym_QMARK), (170, END_STATE, Some anon_sym_QMARK),
     (171, END_STATE, Some anon_sym_QMARK), (172, END_STATE, Some sym_equality_operator),
     (173, END_STATE, Some anon_sym_LT), (174, END_STATE, Some anon_sym_LT),
     (175, END_STATE, Some anon_sym_LT), (176, END_STATE, Some anon_sym_LT),
     (177, END_STATE, Some anon_sym_LT), (178, END_STATE, Some anon_sym_GT),
     (179, END_STATE, Some anon_sym_GT), (180, END_STATE, Some anon_sym_GT),
     (181, END_STATE, Some anon_sym_GT), (182, END_STATE, Some anon_sym_LT_EQ),
     (183, END_STATE, Some anon_sym_GT_EQ), (184, END_STATE, Some anon_sym_PIPE),
     (185, END_STATE, Some anon_sym_PIPE), (186, END_STATE, Some anon_sym_CARET),
     (187, END_STATE, Some anon_sym_CARET), (188, END_STATE, Some anon_sym_AMP),
     (189, END_STATE, Some anon_sym_AMP), (190, END_STATE, Some anon_sym_LT_LT),
     (191, END_STATE, Some anon_sym_LT_LT), (192, END_STATE, Some anon_sym_GT_GT),
     (193, END_STATE, Some anon_sym_GT_GT), (194, END_STATE, Some anon_sym_GT_GT_GT),
     (195, END_STATE, Some anon_sym_GT_GT_GT), (196, END_STATE, Some sym__additive_operator),
     (197, END_STATE, Some sym__additive_operator),
     (198, END_STATE, Some sym__additive_operator),
     (200, END_STATE, Some sym__additive_operator),
     (201, END_STATE, Some sym__additive_operator),
     (202, END_STATE, Some sym__additive_operator), (203, END_STATE, Some anon_sym_STAR),
     (204, END_STATE, Some anon_sym_STAR), (205, END_STATE, Some anon_sym_SLASH),
     (206, END_STATE, Some anon_sym_SLASH), (207, END_STATE, Some anon_sym_PERCENT),
     (208, END_STATE, Some anon_sym_PERCENT), (209, END_STATE, Some anon_sym_TILDE_SLASH),
     (210, END_STATE, Some anon_sym_TILDE_SLASH), (211, END_STATE, Some sym_increment_operator),
     (212, END_STATE, Some anon_sym_DOT_DOT_DOT), (213, END_STATE, Some sym_minus_operator),
     (214, END_STATE, Some sym_minus_operator), (215, END_STATE, Some sym_minus_operator),
     (216, END_STATE, Some anon_sym_BANG), (217, END_STATE, Some anon_sym_BANG),
     (218, END_STATE, Some anon_sym_TILDE), (219, END_STATE, Some anon_sym_TILDE),
     (220, END_STATE, Some anon_sym_TILDE), (221, END_STATE, Some anon_sym_as),
     (222, END_STATE, Some anon_sym_as), (223, END_STATE, Some anon_sym_as),
     (224, END_STATE, Some anon_sym_DOT), (225, END_STATE, Some anon_sym_DOT),
     (226, END_STATE, Some anon_sym_DOT), (227, END_STATE, Some anon_sym_DOT),
     (228, END_STATE, Some anon_sym_DOT), (229, END_STATE, Some anon_sym_QMARK_DOT),
     (230, END_STATE, Some anon_sym_QMARK_DOT), (231, END_STATE, Some anon_sym_DOT_DOT),
     (232, END_STATE, Some anon_sym_DOT_DOT), (233, END_STATE, Some anon_sym_QMARK_DOT_DOT),
     (234, END_STATE, Some anon_sym_SEMI), (235, END_STATE, Some anon_sym_EQ_GT),
     (236, END_STATE, Some anon_sym_AT), (237, END_STATE, Some anon_sym_EQ_EQ),
     (238, END_STATE, Some anon_sym_LBRACK_RBRACK),
     (239, END_STATE, Some anon_sym_LBRACK_RBRACK_EQ), (240, END_STATE, Some anon_sym_async),
     (241, END_STATE, Some anon_sym_async), (242, END_STATE, Some anon_sym_async_STAR),
     (243, END_STATE, Some anon_sym_sync_STAR), (244, END_STATE, Some anon_sym_POUND_BANG),
     (245, END_STATE, Some aux_sym_script_tag_token1),
     (247, END_STATE, Some aux_sym_script_tag_token1), (248, END_STATE, Some anon_sym_LF),
     (249, END_STATE, Some sym_part_of_builtin), (250, END_STATE, Some anon_sym_AMP_AMP),
     (251, END_STATE, Some anon_sym_PIPE_PIPE), (252, END_STATE, Some sym_identifier),
     (253, END_STATE, Some sym_identifier), (254, END_STATE, Some sym_identifier),
     (255, END_STATE, Some sym_identifier), (256, END_STATE, Some sym_identifier),
     (257, END_STATE, Some sym_identifier), (258, END_STATE, Some sym_identifier),
     (259, END_STATE, Some sym_identifier), (260, END_STATE, Some sym_identifier),
     (261, END_STATE, Some sym_identifier), (262, END_STATE, Some sym_identifier),
     (263, END_STATE, Some sym_identifier), (264, END_STATE, Some sym_identifier),
     (265, END_STATE, Some sym_identifier), (266, END_STATE, Some sym_identifier),
     (267, END_STATE, Some sym_identifier), (268, END_STATE, Some sym_identifier_dollar_escaped),
     (269, END_STATE, Some anon_sym_SLASH_SLASH), (270, END_STATE, Some anon_sym_SLASH_SLASH),
     (271, END_STATE, Some anon_sym_SLASH_SLASH), (272, END_STATE, Some anon_sym_SLASH_SLASH),
     (273, END_STATE, Some anon_sym_SLASH_SLASH), (274, END_STATE, Some aux_sym_comment_token1),
     (275, END_STATE, Some aux_sym_comment_token1),
     (276, END_STATE, Some aux_sym_comment_token1),
     (277, END_STATE, Some aux_sym_comment_token1), (278, END_STATE, Some anon_sym_SLASH_STAR),
     (279, END_STATE, Some anon_sym_SLASH_STAR), (280, END_STATE, Some anon_sym_SLASH_STAR),
     (281, END_STATE, Some anon_sym_SLASH_STAR), (282, END_STATE, Some anon_sym_SLASH_STAR),
     (283, END_STATE, Some aux_sym_comment_token2),
     (284, END_STATE, Some anon_sym_SLASH_SLASH_SLASH),
     (285, END_STATE, Some anon_sym_SLASH_SLASH_SLASH),
     (286, END_STATE, Some anon_sym_SLASH_SLASH_SLASH),
     (287, END_STATE, Some anon_sym_SLASH_SLASH_SLASH),
     (288, END_STATE, Some anon_sym_SLASH_SLASH_SLASH),
     (289, END_STATE, Some aux_sym_documentation_comment_token1),
     (290, END_STATE, Some aux_sym_documentation_comment_token1),
     (291, END_STATE, Some aux_sym_documentation_comment_token1)]"

lemma mode_ends:
  "list_all (\<lambda>(s, j, a). jump_of ts_lex_switch s True 0 = j \<and> accept_of ts_lex_switch s = a) mode_ends"
  by (simp add: mode_ends_def jump_of_def accept_of_def ts_lex_bodies)

lemmas mode_end_eqs = mode_ends [unfolded mode_ends_def list.pred_inject prod.case One_nat_def]

subsection \<open>A text for every token\<close>

definition lexed_tokens_1 :: "(TSStateId \<times> string \<times> TSSymbol) list" where
  "lexed_tokens_1 = [
     (0, [], ts_builtin_sym_end), (0, ''a'', sym_identifier), (0, ''#'', anon_sym_POUND),
     (0, ''0'', sym_decimal_integer_literal), (0, ''0xa'', sym_hex_integer_literal),
     (0, ''.0'', sym_decimal_floating_point_literal), (0, [CHR 0x22], anon_sym_DQUOTE),
     (0, [CHR 0x27], anon_sym_SQUOTE),
     (0, [CHR 0x22, CHR 0x22, CHR 0x22], anon_sym_DQUOTE_DQUOTE_DQUOTE),
     (0, [CHR 0x27, CHR 0x27, CHR 0x27], anon_sym_SQUOTE_SQUOTE_SQUOTE),
     (0, ''$'', anon_sym_DOLLAR), (0, ''{'', anon_sym_LBRACE), (0, ''}'', anon_sym_RBRACE),
     (0, [CHR 0x5C, CHR ''a''], sym__unused_escape_sequence), (0, ''['', anon_sym_LBRACK),
     (0, '','', anon_sym_COMMA), (0, '']'', anon_sym_RBRACK), (0, '':'', anon_sym_COLON),
     (0, ''('', anon_sym_LPAREN), (0, '')'', anon_sym_RPAREN), (0, ''='', anon_sym_EQ),
     (0, ''+='', anon_sym_PLUS_EQ), (0, ''-='', anon_sym_DASH_EQ), (0, ''*='', anon_sym_STAR_EQ),
     (0, ''/='', anon_sym_SLASH_EQ), (0, ''%='', anon_sym_PERCENT_EQ),
     (0, ''~/='', anon_sym_TILDE_SLASH_EQ), (0, ''<<='', anon_sym_LT_LT_EQ),
     (0, ''>>='', anon_sym_GT_GT_EQ), (0, ''>>>='', anon_sym_GT_GT_GT_EQ),
     (0, ''&='', anon_sym_AMP_EQ), (0, ''^='', anon_sym_CARET_EQ), (0, ''|='', anon_sym_PIPE_EQ),
     (0, ''??='', anon_sym_QMARK_QMARK_EQ), (0, ''??'', anon_sym_QMARK_QMARK),
     (0, ''?'', anon_sym_QMARK), (0, ''!='', sym_equality_operator), (0, ''<'', anon_sym_LT),
     (0, ''>'', anon_sym_GT), (0, ''<='', anon_sym_LT_EQ), (0, ''>='', anon_sym_GT_EQ),
     (0, ''|'', anon_sym_PIPE), (0, ''^'', anon_sym_CARET), (0, ''&'', anon_sym_AMP),
     (0, ''<<'', anon_sym_LT_LT), (0, ''>>'', anon_sym_GT_GT), (0, ''>>>'', anon_sym_GT_GT_GT),
     (0, ''+'', sym__additive_operator), (0, ''*'', anon_sym_STAR), (0, ''/'', anon_sym_SLASH),
     (0, ''%'', anon_sym_PERCENT), (0, ''~/'', anon_sym_TILDE_SLASH),
     (0, ''++'', sym_increment_operator), (0, ''...'', anon_sym_DOT_DOT_DOT),
     (0, ''-'', sym_minus_operator), (0, ''!'', anon_sym_BANG), (0, ''~'', anon_sym_TILDE),
     (0, ''as'', anon_sym_as), (0, ''.'', anon_sym_DOT), (0, ''?.'', anon_sym_QMARK_DOT),
     (0, ''..'', anon_sym_DOT_DOT), (0, ''?..'', anon_sym_QMARK_DOT_DOT),
     (0, '';'', anon_sym_SEMI), (0, ''=>'', anon_sym_EQ_GT), (0, ''@'', anon_sym_AT),
     (0, ''=='', anon_sym_EQ_EQ), (0, ''async'', anon_sym_async),
     (0, ''async*'', anon_sym_async_STAR), (0, ''sync*'', anon_sym_sync_STAR),
     (0, ''#!'', anon_sym_POUND_BANG), (0, ''part of'', sym_part_of_builtin),
     (0, ''&&'', anon_sym_AMP_AMP), (0, ''||'', anon_sym_PIPE_PIPE),
     (0, ''//'', anon_sym_SLASH_SLASH), (0, ''/*'', anon_sym_SLASH_STAR),
     (0, ''///'', anon_sym_SLASH_SLASH_SLASH), (1, [CHR 0x0A], anon_sym_LF),
     (1, ''//'', anon_sym_SLASH_SLASH), (1, ''/*'', anon_sym_SLASH_STAR),
     (1, ''///'', anon_sym_SLASH_SLASH_SLASH), (2, ''a'', aux_sym_script_tag_token1),
     (2, ''//'', anon_sym_SLASH_SLASH), (2, ''/*'', anon_sym_SLASH_STAR),
     (2, ''///'', anon_sym_SLASH_SLASH_SLASH), (3, ''a'', sym_identifier),
     (3, ''#'', anon_sym_POUND), (3, ''0'', sym_decimal_integer_literal),
     (3, ''0xa'', sym_hex_integer_literal), (3, ''.0'', sym_decimal_floating_point_literal),
     (3, [CHR 0x22], anon_sym_DQUOTE), (3, [CHR 0x27], anon_sym_SQUOTE),
     (3, [CHR 0x22, CHR 0x22, CHR 0x22], anon_sym_DQUOTE_DQUOTE_DQUOTE),
     (3, [CHR 0x27, CHR 0x27, CHR 0x27], anon_sym_SQUOTE_SQUOTE_SQUOTE),
     (3, ''{'', anon_sym_LBRACE), (3, ''}'', anon_sym_RBRACE), (3, ''['', anon_sym_LBRACK),
     (3, '','', anon_sym_COMMA), (3, '':'', anon_sym_COLON), (3, ''('', anon_sym_LPAREN),
     (3, ''='', anon_sym_EQ), (3, ''??'', anon_sym_QMARK_QMARK), (3, ''?'', anon_sym_QMARK),
     (3, ''!='', sym_equality_operator), (3, ''<'', anon_sym_LT), (3, ''>'', anon_sym_GT),
     (3, ''<='', anon_sym_LT_EQ), (3, ''>='', anon_sym_GT_EQ), (3, ''|'', anon_sym_PIPE),
     (3, ''^'', anon_sym_CARET), (3, ''&'', anon_sym_AMP), (3, ''<<'', anon_sym_LT_LT),
     (3, ''>>'', anon_sym_GT_GT), (3, ''>>>'', anon_sym_GT_GT_GT),
     (3, ''+'', sym__additive_operator), (3, ''*'', anon_sym_STAR), (3, ''/'', anon_sym_SLASH),
     (3, ''%'', anon_sym_PERCENT), (3, ''~/'', anon_sym_TILDE_SLASH),
     (3, ''++'', sym_increment_operator), (3, ''-'', sym_minus_operator),
     (3, ''!'', anon_sym_BANG), (3, ''~'', anon_sym_TILDE), (3, ''as'', anon_sym_as),
     (3, ''.'', anon_sym_DOT), (3, ''?.'', anon_sym_QMARK_DOT), (3, ''..'', anon_sym_DOT_DOT),
     (3, ''?..'', anon_sym_QMARK_DOT_DOT), (3, '';'', anon_sym_SEMI), (3, ''@'', anon_sym_AT),
     (3, ''&&'', anon_sym_AMP_AMP), (3, ''||'', anon_sym_PIPE_PIPE),
     (3, ''//'', anon_sym_SLASH_SLASH), (3, ''/*'', anon_sym_SLASH_STAR),
     (3, ''///'', anon_sym_SLASH_SLASH_SLASH), (4, ''a'', sym_identifier),
     (4, ''#'', anon_sym_POUND), (4, ''0'', sym_decimal_integer_literal),
     (4, ''0xa'', sym_hex_integer_literal), (4, ''.0'', sym_decimal_floating_point_literal),
     (4, [CHR 0x22], anon_sym_DQUOTE), (4, [CHR 0x27], anon_sym_SQUOTE),
     (4, [CHR 0x22, CHR 0x22, CHR 0x22], anon_sym_DQUOTE_DQUOTE_DQUOTE),
     (4, [CHR 0x27, CHR 0x27, CHR 0x27], anon_sym_SQUOTE_SQUOTE_SQUOTE),
     (4, ''{'', anon_sym_LBRACE), (4, ''['', anon_sym_LBRACK), (4, '','', anon_sym_COMMA),
     (4, '']'', anon_sym_RBRACK), (4, '':'', anon_sym_COLON), (4, ''('', anon_sym_LPAREN),
     (4, '')'', anon_sym_RPAREN), (4, ''?'', anon_sym_QMARK), (4, ''!='', sym_equality_operator),
     (4, ''<'', anon_sym_LT), (4, ''>'', anon_sym_GT), (4, ''<='', anon_sym_LT_EQ),
     (4, ''>='', anon_sym_GT_EQ), (4, ''++'', sym_increment_operator),
     (4, ''...'', anon_sym_DOT_DOT_DOT), (4, ''-'', sym_minus_operator),
     (4, ''!'', anon_sym_BANG), (4, ''~'', anon_sym_TILDE), (4, ''@'', anon_sym_AT),
     (4, ''//'', anon_sym_SLASH_SLASH), (4, ''/*'', anon_sym_SLASH_STAR),
     (4, ''///'', anon_sym_SLASH_SLASH_SLASH), (5, [CHR 0x22], anon_sym_DQUOTE),
     (5, [CHR 0x27], anon_sym_SQUOTE),
     (5, [CHR 0x22, CHR 0x22, CHR 0x22], anon_sym_DQUOTE_DQUOTE_DQUOTE),
     (5, [CHR 0x27, CHR 0x27, CHR 0x27], anon_sym_SQUOTE_SQUOTE_SQUOTE),
     (5, ''}'', anon_sym_RBRACE), (5, ''['', anon_sym_LBRACK), (5, '','', anon_sym_COMMA),
     (5, '']'', anon_sym_RBRACK), (5, '':'', anon_sym_COLON), (5, ''('', anon_sym_LPAREN),
     (5, '')'', anon_sym_RPAREN), (5, ''??'', anon_sym_QMARK_QMARK), (5, ''?'', anon_sym_QMARK),
     (5, ''!='', sym_equality_operator), (5, ''<'', anon_sym_LT), (5, ''>'', anon_sym_GT),
     (5, ''<='', anon_sym_LT_EQ), (5, ''>='', anon_sym_GT_EQ), (5, ''|'', anon_sym_PIPE),
     (5, ''^'', anon_sym_CARET), (5, ''&'', anon_sym_AMP), (5, ''<<'', anon_sym_LT_LT),
     (5, ''>>'', anon_sym_GT_GT), (5, ''>>>'', anon_sym_GT_GT_GT),
     (5, ''+'', sym__additive_operator), (5, ''*'', anon_sym_STAR), (5, ''/'', anon_sym_SLASH),
     (5, ''%'', anon_sym_PERCENT)]"

definition lexed_tokens_2 :: "(TSStateId \<times> string \<times> TSSymbol) list" where
  "lexed_tokens_2 = [
     (5, ''~/'', anon_sym_TILDE_SLASH), (5, ''!'', anon_sym_BANG), (5, ''as'', anon_sym_as),
     (5, ''.'', anon_sym_DOT), (5, ''?.'', anon_sym_QMARK_DOT), (5, ''=>'', anon_sym_EQ_GT),
     (5, ''&&'', anon_sym_AMP_AMP), (5, ''||'', anon_sym_PIPE_PIPE),
     (5, ''//'', anon_sym_SLASH_SLASH), (5, ''/*'', anon_sym_SLASH_STAR),
     (5, ''///'', anon_sym_SLASH_SLASH_SLASH), (6, [CHR 0x22], anon_sym_DQUOTE),
     (6, [CHR 0x27], anon_sym_SQUOTE),
     (6, [CHR 0x22, CHR 0x22, CHR 0x22], anon_sym_DQUOTE_DQUOTE_DQUOTE),
     (6, [CHR 0x27, CHR 0x27, CHR 0x27], anon_sym_SQUOTE_SQUOTE_SQUOTE),
     (6, ''{'', anon_sym_LBRACE), (6, ''}'', anon_sym_RBRACE), (6, ''['', anon_sym_LBRACK),
     (6, '','', anon_sym_COMMA), (6, '']'', anon_sym_RBRACK), (6, '':'', anon_sym_COLON),
     (6, ''('', anon_sym_LPAREN), (6, '')'', anon_sym_RPAREN), (6, ''='', anon_sym_EQ),
     (6, ''??'', anon_sym_QMARK_QMARK), (6, ''?'', anon_sym_QMARK),
     (6, ''!='', sym_equality_operator), (6, ''<'', anon_sym_LT), (6, ''>'', anon_sym_GT),
     (6, ''<='', anon_sym_LT_EQ), (6, ''>='', anon_sym_GT_EQ), (6, ''|'', anon_sym_PIPE),
     (6, ''^'', anon_sym_CARET), (6, ''&'', anon_sym_AMP), (6, ''<<'', anon_sym_LT_LT),
     (6, ''>>'', anon_sym_GT_GT), (6, ''>>>'', anon_sym_GT_GT_GT),
     (6, ''+'', sym__additive_operator), (6, ''*'', anon_sym_STAR), (6, ''/'', anon_sym_SLASH),
     (6, ''%'', anon_sym_PERCENT), (6, ''~/'', anon_sym_TILDE_SLASH), (6, ''!'', anon_sym_BANG),
     (6, ''as'', anon_sym_as), (6, ''.'', anon_sym_DOT), (6, ''?.'', anon_sym_QMARK_DOT),
     (6, ''..'', anon_sym_DOT_DOT), (6, ''?..'', anon_sym_QMARK_DOT_DOT),
     (6, '';'', anon_sym_SEMI), (6, ''=>'', anon_sym_EQ_GT), (6, ''&&'', anon_sym_AMP_AMP),
     (6, ''||'', anon_sym_PIPE_PIPE), (6, ''//'', anon_sym_SLASH_SLASH),
     (6, ''/*'', anon_sym_SLASH_STAR), (6, ''///'', anon_sym_SLASH_SLASH_SLASH),
     (7, [CHR 0x22], anon_sym_DQUOTE), (7, [CHR 0x27], anon_sym_SQUOTE),
     (7, [CHR 0x22, CHR 0x22, CHR 0x22], anon_sym_DQUOTE_DQUOTE_DQUOTE),
     (7, [CHR 0x27, CHR 0x27, CHR 0x27], anon_sym_SQUOTE_SQUOTE_SQUOTE),
     (7, ''{'', anon_sym_LBRACE), (7, ''['', anon_sym_LBRACK), (7, '','', anon_sym_COMMA),
     (7, ''('', anon_sym_LPAREN), (7, ''='', anon_sym_EQ), (7, ''??'', anon_sym_QMARK_QMARK),
     (7, ''?'', anon_sym_QMARK), (7, ''!='', sym_equality_operator), (7, ''<'', anon_sym_LT),
     (7, ''>'', anon_sym_GT), (7, ''<='', anon_sym_LT_EQ), (7, ''>='', anon_sym_GT_EQ),
     (7, ''|'', anon_sym_PIPE), (7, ''^'', anon_sym_CARET), (7, ''&'', anon_sym_AMP),
     (7, ''<<'', anon_sym_LT_LT), (7, ''>>'', anon_sym_GT_GT), (7, ''>>>'', anon_sym_GT_GT_GT),
     (7, ''+'', sym__additive_operator), (7, ''*'', anon_sym_STAR), (7, ''/'', anon_sym_SLASH),
     (7, ''%'', anon_sym_PERCENT), (7, ''~/'', anon_sym_TILDE_SLASH), (7, ''!'', anon_sym_BANG),
     (7, ''as'', anon_sym_as), (7, ''.'', anon_sym_DOT), (7, ''?.'', anon_sym_QMARK_DOT),
     (7, ''..'', anon_sym_DOT_DOT), (7, ''?..'', anon_sym_QMARK_DOT_DOT),
     (7, '';'', anon_sym_SEMI), (7, ''=>'', anon_sym_EQ_GT), (7, ''async'', anon_sym_async),
     (7, ''async*'', anon_sym_async_STAR), (7, ''sync*'', anon_sym_sync_STAR),
     (7, ''&&'', anon_sym_AMP_AMP), (7, ''||'', anon_sym_PIPE_PIPE),
     (7, ''//'', anon_sym_SLASH_SLASH), (7, ''/*'', anon_sym_SLASH_STAR),
     (7, ''///'', anon_sym_SLASH_SLASH_SLASH), (8, ''}'', anon_sym_RBRACE),
     (8, ''['', anon_sym_LBRACK), (8, '','', anon_sym_COMMA), (8, '']'', anon_sym_RBRACK),
     (8, '':'', anon_sym_COLON), (8, ''('', anon_sym_LPAREN), (8, '')'', anon_sym_RPAREN),
     (8, ''='', anon_sym_EQ), (8, ''+='', anon_sym_PLUS_EQ), (8, ''-='', anon_sym_DASH_EQ),
     (8, ''*='', anon_sym_STAR_EQ), (8, ''/='', anon_sym_SLASH_EQ),
     (8, ''%='', anon_sym_PERCENT_EQ), (8, ''~/='', anon_sym_TILDE_SLASH_EQ),
     (8, ''<<='', anon_sym_LT_LT_EQ), (8, ''>>='', anon_sym_GT_GT_EQ),
     (8, ''>>>='', anon_sym_GT_GT_GT_EQ), (8, ''&='', anon_sym_AMP_EQ),
     (8, ''^='', anon_sym_CARET_EQ), (8, ''|='', anon_sym_PIPE_EQ),
     (8, ''??='', anon_sym_QMARK_QMARK_EQ), (8, ''??'', anon_sym_QMARK_QMARK),
     (8, ''?'', anon_sym_QMARK), (8, ''!='', sym_equality_operator), (8, ''<'', anon_sym_LT),
     (8, ''>'', anon_sym_GT), (8, ''<='', anon_sym_LT_EQ), (8, ''>='', anon_sym_GT_EQ),
     (8, ''|'', anon_sym_PIPE), (8, ''^'', anon_sym_CARET), (8, ''&'', anon_sym_AMP),
     (8, ''<<'', anon_sym_LT_LT), (8, ''>>'', anon_sym_GT_GT), (8, ''>>>'', anon_sym_GT_GT_GT),
     (8, ''+'', sym__additive_operator), (8, ''*'', anon_sym_STAR), (8, ''/'', anon_sym_SLASH),
     (8, ''%'', anon_sym_PERCENT), (8, ''~/'', anon_sym_TILDE_SLASH),
     (8, ''++'', sym_increment_operator), (8, ''!'', anon_sym_BANG), (8, ''as'', anon_sym_as),
     (8, ''.'', anon_sym_DOT), (8, ''?.'', anon_sym_QMARK_DOT), (8, ''=>'', anon_sym_EQ_GT),
     (8, ''&&'', anon_sym_AMP_AMP), (8, ''||'', anon_sym_PIPE_PIPE),
     (8, ''//'', anon_sym_SLASH_SLASH), (8, ''/*'', anon_sym_SLASH_STAR),
     (8, ''///'', anon_sym_SLASH_SLASH_SLASH), (9, ''a'', sym_identifier),
     (9, ''}'', anon_sym_RBRACE), (9, ''['', anon_sym_LBRACK), (9, '','', anon_sym_COMMA),
     (9, '']'', anon_sym_RBRACK), (9, '':'', anon_sym_COLON), (9, ''('', anon_sym_LPAREN),
     (9, '')'', anon_sym_RPAREN), (9, ''='', anon_sym_EQ), (9, ''+='', anon_sym_PLUS_EQ),
     (9, ''-='', anon_sym_DASH_EQ), (9, ''*='', anon_sym_STAR_EQ),
     (9, ''/='', anon_sym_SLASH_EQ), (9, ''%='', anon_sym_PERCENT_EQ),
     (9, ''~/='', anon_sym_TILDE_SLASH_EQ), (9, ''<<='', anon_sym_LT_LT_EQ),
     (9, ''>>='', anon_sym_GT_GT_EQ), (9, ''>>>='', anon_sym_GT_GT_GT_EQ),
     (9, ''&='', anon_sym_AMP_EQ), (9, ''^='', anon_sym_CARET_EQ), (9, ''|='', anon_sym_PIPE_EQ),
     (9, ''??='', anon_sym_QMARK_QMARK_EQ), (9, ''??'', anon_sym_QMARK_QMARK),
     (9, ''?'', anon_sym_QMARK), (9, ''!='', sym_equality_operator), (9, ''<'', anon_sym_LT),
     (9, ''>'', anon_sym_GT), (9, ''<='', anon_sym_LT_EQ), (9, ''>='', anon_sym_GT_EQ),
     (9, ''|'', anon_sym_PIPE), (9, ''^'', anon_sym_CARET), (9, ''&'', anon_sym_AMP),
     (9, ''<<'', anon_sym_LT_LT), (9, ''>>'', anon_sym_GT_GT), (9, ''>>>'', anon_sym_GT_GT_GT),
     (9, ''+'', sym__additive_operator), (9, ''*'', anon_sym_STAR), (9, ''/'', anon_sym_SLASH),
     (9, ''%'', anon_sym_PERCENT), (9, ''~/'', anon_sym_TILDE_SLASH),
     (9, ''++'', sym_increment_operator), (9, ''!'', anon_sym_BANG), (9, ''as'', anon_sym_as),
     (9, ''.'', anon_sym_DOT), (9, ''?.'', anon_sym_QMARK_DOT)]"

definition lexed_tokens_3 :: "(TSStateId \<times> string \<times> TSSymbol) list" where
  "lexed_tokens_3 = [
     (9, ''..'', anon_sym_DOT_DOT), (9, ''?..'', anon_sym_QMARK_DOT_DOT),
     (9, '';'', anon_sym_SEMI), (9, ''=>'', anon_sym_EQ_GT), (9, ''&&'', anon_sym_AMP_AMP),
     (9, ''||'', anon_sym_PIPE_PIPE), (9, ''//'', anon_sym_SLASH_SLASH),
     (9, ''/*'', anon_sym_SLASH_STAR), (9, ''///'', anon_sym_SLASH_SLASH_SLASH),
     (10, ''}'', anon_sym_RBRACE), (10, ''['', anon_sym_LBRACK), (10, '','', anon_sym_COMMA),
     (10, '']'', anon_sym_RBRACK), (10, '':'', anon_sym_COLON), (10, ''('', anon_sym_LPAREN),
     (10, '')'', anon_sym_RPAREN), (10, ''='', anon_sym_EQ), (10, ''+='', anon_sym_PLUS_EQ),
     (10, ''-='', anon_sym_DASH_EQ), (10, ''*='', anon_sym_STAR_EQ),
     (10, ''/='', anon_sym_SLASH_EQ), (10, ''%='', anon_sym_PERCENT_EQ),
     (10, ''~/='', anon_sym_TILDE_SLASH_EQ), (10, ''<<='', anon_sym_LT_LT_EQ),
     (10, ''>>='', anon_sym_GT_GT_EQ), (10, ''>>>='', anon_sym_GT_GT_GT_EQ),
     (10, ''&='', anon_sym_AMP_EQ), (10, ''^='', anon_sym_CARET_EQ),
     (10, ''|='', anon_sym_PIPE_EQ), (10, ''??='', anon_sym_QMARK_QMARK_EQ),
     (10, ''??'', anon_sym_QMARK_QMARK), (10, ''?'', anon_sym_QMARK),
     (10, ''!='', sym_equality_operator), (10, ''<'', anon_sym_LT), (10, ''>'', anon_sym_GT),
     (10, ''<='', anon_sym_LT_EQ), (10, ''>='', anon_sym_GT_EQ), (10, ''|'', anon_sym_PIPE),
     (10, ''^'', anon_sym_CARET), (10, ''&'', anon_sym_AMP), (10, ''<<'', anon_sym_LT_LT),
     (10, ''>>'', anon_sym_GT_GT), (10, ''>>>'', anon_sym_GT_GT_GT),
     (10, ''+'', sym__additive_operator), (10, ''*'', anon_sym_STAR),
     (10, ''/'', anon_sym_SLASH), (10, ''%'', anon_sym_PERCENT),
     (10, ''~/'', anon_sym_TILDE_SLASH), (10, ''!'', anon_sym_BANG), (10, ''as'', anon_sym_as),
     (10, ''.'', anon_sym_DOT), (10, ''?.'', anon_sym_QMARK_DOT), (10, ''..'', anon_sym_DOT_DOT),
     (10, ''?..'', anon_sym_QMARK_DOT_DOT), (10, '';'', anon_sym_SEMI),
     (10, ''=>'', anon_sym_EQ_GT), (10, ''&&'', anon_sym_AMP_AMP),
     (10, ''||'', anon_sym_PIPE_PIPE), (10, ''//'', anon_sym_SLASH_SLASH),
     (10, ''/*'', anon_sym_SLASH_STAR), (10, ''///'', anon_sym_SLASH_SLASH_SLASH),
     (11, ''{'', anon_sym_LBRACE), (11, ''['', anon_sym_LBRACK), (11, '','', anon_sym_COMMA),
     (11, ''('', anon_sym_LPAREN), (11, ''='', anon_sym_EQ), (11, ''+='', anon_sym_PLUS_EQ),
     (11, ''-='', anon_sym_DASH_EQ), (11, ''*='', anon_sym_STAR_EQ),
     (11, ''/='', anon_sym_SLASH_EQ), (11, ''%='', anon_sym_PERCENT_EQ),
     (11, ''~/='', anon_sym_TILDE_SLASH_EQ), (11, ''<<='', anon_sym_LT_LT_EQ),
     (11, ''>>='', anon_sym_GT_GT_EQ), (11, ''>>>='', anon_sym_GT_GT_GT_EQ),
     (11, ''&='', anon_sym_AMP_EQ), (11, ''^='', anon_sym_CARET_EQ),
     (11, ''|='', anon_sym_PIPE_EQ), (11, ''??='', anon_sym_QMARK_QMARK_EQ),
     (11, ''??'', anon_sym_QMARK_QMARK), (11, ''?'', anon_sym_QMARK),
     (11, ''!='', sym_equality_operator), (11, ''<'', anon_sym_LT), (11, ''>'', anon_sym_GT),
     (11, ''<='', anon_sym_LT_EQ), (11, ''>='', anon_sym_GT_EQ), (11, ''|'', anon_sym_PIPE),
     (11, ''^'', anon_sym_CARET), (11, ''&'', anon_sym_AMP), (11, ''<<'', anon_sym_LT_LT),
     (11, ''>>'', anon_sym_GT_GT), (11, ''>>>'', anon_sym_GT_GT_GT),
     (11, ''+'', sym__additive_operator), (11, ''*'', anon_sym_STAR),
     (11, ''/'', anon_sym_SLASH), (11, ''%'', anon_sym_PERCENT),
     (11, ''~/'', anon_sym_TILDE_SLASH), (11, ''++'', sym_increment_operator),
     (11, ''!'', anon_sym_BANG), (11, ''as'', anon_sym_as), (11, ''.'', anon_sym_DOT),
     (11, ''?.'', anon_sym_QMARK_DOT), (11, ''..'', anon_sym_DOT_DOT),
     (11, ''?..'', anon_sym_QMARK_DOT_DOT), (11, '';'', anon_sym_SEMI),
     (11, ''=>'', anon_sym_EQ_GT), (11, ''async'', anon_sym_async),
     (11, ''async*'', anon_sym_async_STAR), (11, ''sync*'', anon_sym_sync_STAR),
     (11, ''&&'', anon_sym_AMP_AMP), (11, ''||'', anon_sym_PIPE_PIPE),
     (11, ''//'', anon_sym_SLASH_SLASH), (11, ''/*'', anon_sym_SLASH_STAR),
     (11, ''///'', anon_sym_SLASH_SLASH_SLASH), (12, ''{'', anon_sym_LBRACE),
     (12, ''['', anon_sym_LBRACK), (12, '','', anon_sym_COMMA), (12, ''('', anon_sym_LPAREN),
     (12, ''='', anon_sym_EQ), (12, ''+='', anon_sym_PLUS_EQ), (12, ''-='', anon_sym_DASH_EQ),
     (12, ''*='', anon_sym_STAR_EQ), (12, ''/='', anon_sym_SLASH_EQ),
     (12, ''%='', anon_sym_PERCENT_EQ), (12, ''~/='', anon_sym_TILDE_SLASH_EQ),
     (12, ''<<='', anon_sym_LT_LT_EQ), (12, ''>>='', anon_sym_GT_GT_EQ),
     (12, ''>>>='', anon_sym_GT_GT_GT_EQ), (12, ''&='', anon_sym_AMP_EQ),
     (12, ''^='', anon_sym_CARET_EQ), (12, ''|='', anon_sym_PIPE_EQ),
     (12, ''??='', anon_sym_QMARK_QMARK_EQ), (12, ''??'', anon_sym_QMARK_QMARK),
     (12, ''?'', anon_sym_QMARK), (12, ''!='', sym_equality_operator), (12, ''<'', anon_sym_LT),
     (12, ''>'', anon_sym_GT), (12, ''<='', anon_sym_LT_EQ), (12, ''>='', anon_sym_GT_EQ),
     (12, ''|'', anon_sym_PIPE), (12, ''^'', anon_sym_CARET), (12, ''&'', anon_sym_AMP),
     (12, ''<<'', anon_sym_LT_LT), (12, ''>>'', anon_sym_GT_GT),
     (12, ''>>>'', anon_sym_GT_GT_GT), (12, ''+'', sym__additive_operator),
     (12, ''*'', anon_sym_STAR), (12, ''/'', anon_sym_SLASH), (12, ''%'', anon_sym_PERCENT),
     (12, ''~/'', anon_sym_TILDE_SLASH), (12, ''!'', anon_sym_BANG), (12, ''as'', anon_sym_as),
     (12, ''.'', anon_sym_DOT), (12, ''?.'', anon_sym_QMARK_DOT), (12, ''..'', anon_sym_DOT_DOT),
     (12, ''?..'', anon_sym_QMARK_DOT_DOT), (12, '';'', anon_sym_SEMI),
     (12, ''=>'', anon_sym_EQ_GT), (12, ''async'', anon_sym_async),
     (12, ''async*'', anon_sym_async_STAR), (12, ''sync*'', anon_sym_sync_STAR),
     (12, ''&&'', anon_sym_AMP_AMP), (12, ''||'', anon_sym_PIPE_PIPE),
     (12, ''//'', anon_sym_SLASH_SLASH), (12, ''/*'', anon_sym_SLASH_STAR),
     (12, ''///'', anon_sym_SLASH_SLASH_SLASH), (13, ''}'', anon_sym_RBRACE),
     (13, ''['', anon_sym_LBRACK), (13, '','', anon_sym_COMMA), (13, '']'', anon_sym_RBRACK),
     (13, '':'', anon_sym_COLON), (13, ''('', anon_sym_LPAREN), (13, '')'', anon_sym_RPAREN),
     (13, ''??'', anon_sym_QMARK_QMARK), (13, ''?'', anon_sym_QMARK),
     (13, ''!='', sym_equality_operator), (13, ''<'', anon_sym_LT), (13, ''>'', anon_sym_GT),
     (13, ''<='', anon_sym_LT_EQ), (13, ''>='', anon_sym_GT_EQ), (13, ''|'', anon_sym_PIPE),
     (13, ''^'', anon_sym_CARET), (13, ''&'', anon_sym_AMP), (13, ''<<'', anon_sym_LT_LT),
     (13, ''>>'', anon_sym_GT_GT), (13, ''>>>'', anon_sym_GT_GT_GT),
     (13, ''+'', sym__additive_operator), (13, ''*'', anon_sym_STAR),
     (13, ''/'', anon_sym_SLASH), (13, ''%'', anon_sym_PERCENT),
     (13, ''~/'', anon_sym_TILDE_SLASH), (13, ''++'', sym_increment_operator),
     (13, ''!'', anon_sym_BANG)]"

definition lexed_tokens_4 :: "(TSStateId \<times> string \<times> TSSymbol) list" where
  "lexed_tokens_4 = [
     (13, ''as'', anon_sym_as), (13, ''.'', anon_sym_DOT), (13, ''?.'', anon_sym_QMARK_DOT),
     (13, ''=>'', anon_sym_EQ_GT), (13, ''&&'', anon_sym_AMP_AMP),
     (13, ''||'', anon_sym_PIPE_PIPE), (13, ''//'', anon_sym_SLASH_SLASH),
     (13, ''/*'', anon_sym_SLASH_STAR), (13, ''///'', anon_sym_SLASH_SLASH_SLASH),
     (14, ''}'', anon_sym_RBRACE), (14, ''['', anon_sym_LBRACK), (14, '','', anon_sym_COMMA),
     (14, '']'', anon_sym_RBRACK), (14, '':'', anon_sym_COLON), (14, ''('', anon_sym_LPAREN),
     (14, '')'', anon_sym_RPAREN), (14, ''??'', anon_sym_QMARK_QMARK),
     (14, ''?'', anon_sym_QMARK), (14, ''!='', sym_equality_operator), (14, ''<'', anon_sym_LT),
     (14, ''>'', anon_sym_GT), (14, ''<='', anon_sym_LT_EQ), (14, ''>='', anon_sym_GT_EQ),
     (14, ''|'', anon_sym_PIPE), (14, ''^'', anon_sym_CARET), (14, ''&'', anon_sym_AMP),
     (14, ''<<'', anon_sym_LT_LT), (14, ''>>'', anon_sym_GT_GT),
     (14, ''>>>'', anon_sym_GT_GT_GT), (14, ''+'', sym__additive_operator),
     (14, ''*'', anon_sym_STAR), (14, ''/'', anon_sym_SLASH), (14, ''%'', anon_sym_PERCENT),
     (14, ''~/'', anon_sym_TILDE_SLASH), (14, ''++'', sym_increment_operator),
     (14, ''!'', anon_sym_BANG), (14, ''as'', anon_sym_as), (14, ''.'', anon_sym_DOT),
     (14, ''?.'', anon_sym_QMARK_DOT), (14, ''..'', anon_sym_DOT_DOT),
     (14, ''?..'', anon_sym_QMARK_DOT_DOT), (14, '';'', anon_sym_SEMI),
     (14, ''=>'', anon_sym_EQ_GT), (14, ''&&'', anon_sym_AMP_AMP),
     (14, ''||'', anon_sym_PIPE_PIPE), (14, ''//'', anon_sym_SLASH_SLASH),
     (14, ''/*'', anon_sym_SLASH_STAR), (14, ''///'', anon_sym_SLASH_SLASH_SLASH),
     (15, ''{'', anon_sym_LBRACE), (15, ''['', anon_sym_LBRACK), (15, '','', anon_sym_COMMA),
     (15, ''('', anon_sym_LPAREN), (15, ''??'', anon_sym_QMARK_QMARK),
     (15, ''?'', anon_sym_QMARK), (15, ''!='', sym_equality_operator), (15, ''<'', anon_sym_LT),
     (15, ''>'', anon_sym_GT), (15, ''<='', anon_sym_LT_EQ), (15, ''>='', anon_sym_GT_EQ),
     (15, ''|'', anon_sym_PIPE), (15, ''^'', anon_sym_CARET), (15, ''&'', anon_sym_AMP),
     (15, ''<<'', anon_sym_LT_LT), (15, ''>>'', anon_sym_GT_GT),
     (15, ''>>>'', anon_sym_GT_GT_GT), (15, ''+'', sym__additive_operator),
     (15, ''*'', anon_sym_STAR), (15, ''/'', anon_sym_SLASH), (15, ''%'', anon_sym_PERCENT),
     (15, ''~/'', anon_sym_TILDE_SLASH), (15, ''++'', sym_increment_operator),
     (15, ''!'', anon_sym_BANG), (15, ''as'', anon_sym_as), (15, ''.'', anon_sym_DOT),
     (15, ''?.'', anon_sym_QMARK_DOT), (15, ''..'', anon_sym_DOT_DOT),
     (15, ''?..'', anon_sym_QMARK_DOT_DOT), (15, '';'', anon_sym_SEMI),
     (15, ''=>'', anon_sym_EQ_GT), (15, ''async'', anon_sym_async),
     (15, ''async*'', anon_sym_async_STAR), (15, ''sync*'', anon_sym_sync_STAR),
     (15, ''&&'', anon_sym_AMP_AMP), (15, ''||'', anon_sym_PIPE_PIPE),
     (15, ''//'', anon_sym_SLASH_SLASH), (15, ''/*'', anon_sym_SLASH_STAR),
     (15, ''///'', anon_sym_SLASH_SLASH_SLASH), (17, [CHR 0x22], anon_sym_DQUOTE),
     (17, [CHR 0x27], anon_sym_SQUOTE),
     (17, [CHR 0x22, CHR 0x22, CHR 0x22], anon_sym_DQUOTE_DQUOTE_DQUOTE),
     (17, ''$'', anon_sym_DOLLAR), (17, ''}'', anon_sym_RBRACE),
     (17, [CHR 0x5C, CHR ''a''], sym__unused_escape_sequence), (17, '','', anon_sym_COMMA),
     (17, '']'', anon_sym_RBRACK), (17, '')'', anon_sym_RPAREN), (17, ''='', anon_sym_EQ),
     (17, ''?'', anon_sym_QMARK), (17, ''!'', anon_sym_BANG), (17, ''as'', anon_sym_as),
     (17, ''&&'', anon_sym_AMP_AMP), (17, ''||'', anon_sym_PIPE_PIPE),
     (17, ''//'', anon_sym_SLASH_SLASH), (17, ''/*'', anon_sym_SLASH_STAR),
     (17, ''///'', anon_sym_SLASH_SLASH_SLASH), (19, [CHR 0x22], anon_sym_DQUOTE),
     (19, [CHR 0x27], anon_sym_SQUOTE),
     (19, [CHR 0x22, CHR 0x22, CHR 0x22], anon_sym_DQUOTE_DQUOTE_DQUOTE),
     (19, [CHR 0x27, CHR 0x27, CHR 0x27], anon_sym_SQUOTE_SQUOTE_SQUOTE),
     (19, ''}'', anon_sym_RBRACE), (19, '','', anon_sym_COMMA), (19, '']'', anon_sym_RBRACK),
     (19, '':'', anon_sym_COLON), (19, ''('', anon_sym_LPAREN), (19, '')'', anon_sym_RPAREN),
     (19, ''?'', anon_sym_QMARK), (19, ''<'', anon_sym_LT), (19, ''>'', anon_sym_GT),
     (19, ''<='', anon_sym_LT_EQ), (19, ''>='', anon_sym_GT_EQ), (19, ''|'', anon_sym_PIPE),
     (19, ''^'', anon_sym_CARET), (19, ''&'', anon_sym_AMP), (19, ''<<'', anon_sym_LT_LT),
     (19, ''>>'', anon_sym_GT_GT), (19, ''>>>'', anon_sym_GT_GT_GT),
     (19, ''+'', sym__additive_operator), (19, ''*'', anon_sym_STAR),
     (19, ''/'', anon_sym_SLASH), (19, ''%'', anon_sym_PERCENT),
     (19, ''~/'', anon_sym_TILDE_SLASH), (19, ''!'', anon_sym_BANG), (19, ''~'', anon_sym_TILDE),
     (19, ''as'', anon_sym_as), (19, ''.'', anon_sym_DOT), (19, ''=>'', anon_sym_EQ_GT),
     (19, ''=='', anon_sym_EQ_EQ), (19, ''[]'', anon_sym_LBRACK_RBRACK),
     (19, ''[]='', anon_sym_LBRACK_RBRACK_EQ), (19, ''&&'', anon_sym_AMP_AMP),
     (19, ''||'', anon_sym_PIPE_PIPE), (19, ''//'', anon_sym_SLASH_SLASH),
     (19, ''/*'', anon_sym_SLASH_STAR), (19, ''///'', anon_sym_SLASH_SLASH_SLASH),
     (20, [CHR 0x22], anon_sym_DQUOTE), (20, [CHR 0x27], anon_sym_SQUOTE),
     (20, [CHR 0x27, CHR 0x27, CHR 0x27], anon_sym_SQUOTE_SQUOTE_SQUOTE),
     (20, ''$'', anon_sym_DOLLAR), (20, ''{'', anon_sym_LBRACE),
     (20, [CHR 0x5C, CHR ''a''], sym__unused_escape_sequence), (20, ''['', anon_sym_LBRACK),
     (20, '','', anon_sym_COMMA), (20, ''('', anon_sym_LPAREN), (20, ''?'', anon_sym_QMARK),
     (20, ''<'', anon_sym_LT), (20, ''!'', anon_sym_BANG), (20, ''.'', anon_sym_DOT),
     (20, ''?.'', anon_sym_QMARK_DOT), (20, ''..'', anon_sym_DOT_DOT),
     (20, ''?..'', anon_sym_QMARK_DOT_DOT), (20, '';'', anon_sym_SEMI),
     (20, ''=>'', anon_sym_EQ_GT), (20, ''async'', anon_sym_async),
     (20, ''async*'', anon_sym_async_STAR), (20, ''sync*'', anon_sym_sync_STAR),
     (20, ''//'', anon_sym_SLASH_SLASH), (20, ''/*'', anon_sym_SLASH_STAR),
     (20, ''///'', anon_sym_SLASH_SLASH_SLASH), (22, ''{'', anon_sym_LBRACE),
     (22, ''}'', anon_sym_RBRACE), (22, ''['', anon_sym_LBRACK), (22, '','', anon_sym_COMMA),
     (22, '']'', anon_sym_RBRACK), (22, '':'', anon_sym_COLON), (22, ''('', anon_sym_LPAREN),
     (22, '')'', anon_sym_RPAREN), (22, ''='', anon_sym_EQ), (22, ''+='', anon_sym_PLUS_EQ),
     (22, ''-='', anon_sym_DASH_EQ), (22, ''*='', anon_sym_STAR_EQ),
     (22, ''/='', anon_sym_SLASH_EQ), (22, ''%='', anon_sym_PERCENT_EQ),
     (22, ''~/='', anon_sym_TILDE_SLASH_EQ), (22, ''<<='', anon_sym_LT_LT_EQ),
     (22, ''>>='', anon_sym_GT_GT_EQ), (22, ''>>>='', anon_sym_GT_GT_GT_EQ),
     (22, ''&='', anon_sym_AMP_EQ), (22, ''^='', anon_sym_CARET_EQ),
     (22, ''|='', anon_sym_PIPE_EQ), (22, ''??='', anon_sym_QMARK_QMARK_EQ),
     (22, ''?'', anon_sym_QMARK), (22, ''<'', anon_sym_LT), (22, ''!'', anon_sym_BANG)]"

definition lexed_tokens_5 :: "(TSStateId \<times> string \<times> TSSymbol) list" where
  "lexed_tokens_5 = [
     (22, ''.'', anon_sym_DOT), (22, ''?.'', anon_sym_QMARK_DOT), (22, ''..'', anon_sym_DOT_DOT),
     (22, ''?..'', anon_sym_QMARK_DOT_DOT), (22, '';'', anon_sym_SEMI),
     (22, ''=>'', anon_sym_EQ_GT), (22, ''async'', anon_sym_async),
     (22, ''async*'', anon_sym_async_STAR), (22, ''sync*'', anon_sym_sync_STAR),
     (22, ''//'', anon_sym_SLASH_SLASH), (22, ''/*'', anon_sym_SLASH_STAR),
     (22, ''///'', anon_sym_SLASH_SLASH_SLASH), (23, ''}'', anon_sym_RBRACE),
     (23, ''['', anon_sym_LBRACK), (23, '','', anon_sym_COMMA), (23, '']'', anon_sym_RBRACK),
     (23, '':'', anon_sym_COLON), (23, ''('', anon_sym_LPAREN), (23, '')'', anon_sym_RPAREN),
     (23, ''='', anon_sym_EQ), (23, ''+='', anon_sym_PLUS_EQ), (23, ''-='', anon_sym_DASH_EQ),
     (23, ''*='', anon_sym_STAR_EQ), (23, ''/='', anon_sym_SLASH_EQ),
     (23, ''%='', anon_sym_PERCENT_EQ), (23, ''~/='', anon_sym_TILDE_SLASH_EQ),
     (23, ''<<='', anon_sym_LT_LT_EQ), (23, ''>>='', anon_sym_GT_GT_EQ),
     (23, ''>>>='', anon_sym_GT_GT_GT_EQ), (23, ''&='', anon_sym_AMP_EQ),
     (23, ''^='', anon_sym_CARET_EQ), (23, ''|='', anon_sym_PIPE_EQ),
     (23, ''??='', anon_sym_QMARK_QMARK_EQ), (23, ''?'', anon_sym_QMARK),
     (23, ''<'', anon_sym_LT), (23, ''!'', anon_sym_BANG), (23, ''.'', anon_sym_DOT),
     (23, ''?.'', anon_sym_QMARK_DOT), (23, ''..'', anon_sym_DOT_DOT),
     (23, ''?..'', anon_sym_QMARK_DOT_DOT), (23, '';'', anon_sym_SEMI),
     (23, ''=>'', anon_sym_EQ_GT), (23, ''//'', anon_sym_SLASH_SLASH),
     (23, ''/*'', anon_sym_SLASH_STAR), (23, ''///'', anon_sym_SLASH_SLASH_SLASH),
     (24, ''a'', sym_identifier), (24, ''}'', anon_sym_RBRACE), (24, '','', anon_sym_COMMA),
     (24, '']'', anon_sym_RBRACK), (24, '':'', anon_sym_COLON), (24, ''('', anon_sym_LPAREN),
     (24, '')'', anon_sym_RPAREN), (24, ''='', anon_sym_EQ), (24, ''?'', anon_sym_QMARK),
     (24, ''<'', anon_sym_LT), (24, ''!'', anon_sym_BANG), (24, ''as'', anon_sym_as),
     (24, ''.'', anon_sym_DOT), (24, ''=>'', anon_sym_EQ_GT), (24, ''&&'', anon_sym_AMP_AMP),
     (24, ''||'', anon_sym_PIPE_PIPE), (24, ''//'', anon_sym_SLASH_SLASH),
     (24, ''/*'', anon_sym_SLASH_STAR), (24, ''///'', anon_sym_SLASH_SLASH_SLASH),
     (25, ''a'', sym_identifier), (25, ''#'', anon_sym_POUND),
     (25, ''0'', sym_decimal_integer_literal), (25, ''0xa'', sym_hex_integer_literal),
     (25, ''.0'', sym_decimal_floating_point_literal), (25, [CHR 0x22], anon_sym_DQUOTE),
     (25, [CHR 0x27], anon_sym_SQUOTE),
     (25, [CHR 0x22, CHR 0x22, CHR 0x22], anon_sym_DQUOTE_DQUOTE_DQUOTE),
     (25, [CHR 0x27, CHR 0x27, CHR 0x27], anon_sym_SQUOTE_SQUOTE_SQUOTE),
     (25, ''{'', anon_sym_LBRACE), (25, ''}'', anon_sym_RBRACE), (25, ''['', anon_sym_LBRACK),
     (25, '','', anon_sym_COMMA), (25, '']'', anon_sym_RBRACK), (25, '':'', anon_sym_COLON),
     (25, ''('', anon_sym_LPAREN), (25, '')'', anon_sym_RPAREN),
     (25, ''!='', sym_equality_operator), (25, ''<'', anon_sym_LT), (25, ''>'', anon_sym_GT),
     (25, ''<='', anon_sym_LT_EQ), (25, ''>='', anon_sym_GT_EQ),
     (25, ''...'', anon_sym_DOT_DOT_DOT), (25, ''-'', sym_minus_operator),
     (25, ''@'', anon_sym_AT), (25, ''//'', anon_sym_SLASH_SLASH),
     (25, ''/*'', anon_sym_SLASH_STAR), (25, ''///'', anon_sym_SLASH_SLASH_SLASH),
     (26, ''}'', anon_sym_RBRACE), (26, '','', anon_sym_COMMA), (26, '']'', anon_sym_RBRACK),
     (26, '':'', anon_sym_COLON), (26, ''('', anon_sym_LPAREN), (26, '')'', anon_sym_RPAREN),
     (26, ''??'', anon_sym_QMARK_QMARK), (26, ''?'', anon_sym_QMARK),
     (26, ''!='', sym_equality_operator), (26, ''<'', anon_sym_LT), (26, ''>'', anon_sym_GT),
     (26, ''<='', anon_sym_LT_EQ), (26, ''>='', anon_sym_GT_EQ), (26, ''|'', anon_sym_PIPE),
     (26, ''^'', anon_sym_CARET), (26, ''&'', anon_sym_AMP), (26, ''<<'', anon_sym_LT_LT),
     (26, ''>>'', anon_sym_GT_GT), (26, ''>>>'', anon_sym_GT_GT_GT),
     (26, ''+'', sym__additive_operator), (26, ''*'', anon_sym_STAR),
     (26, ''/'', anon_sym_SLASH), (26, ''%'', anon_sym_PERCENT),
     (26, ''~/'', anon_sym_TILDE_SLASH), (26, ''as'', anon_sym_as), (26, ''.'', anon_sym_DOT),
     (26, ''=>'', anon_sym_EQ_GT), (26, ''&&'', anon_sym_AMP_AMP),
     (26, ''||'', anon_sym_PIPE_PIPE), (26, ''//'', anon_sym_SLASH_SLASH),
     (26, ''/*'', anon_sym_SLASH_STAR), (26, ''///'', anon_sym_SLASH_SLASH_SLASH),
     (27, ''}'', anon_sym_RBRACE), (27, ''['', anon_sym_LBRACK), (27, '','', anon_sym_COMMA),
     (27, '']'', anon_sym_RBRACK), (27, '':'', anon_sym_COLON), (27, ''('', anon_sym_LPAREN),
     (27, '')'', anon_sym_RPAREN), (27, ''??'', anon_sym_QMARK_QMARK),
     (27, ''?'', anon_sym_QMARK), (27, ''!='', sym_equality_operator), (27, ''<'', anon_sym_LT),
     (27, ''>'', anon_sym_GT), (27, ''<='', anon_sym_LT_EQ), (27, ''>='', anon_sym_GT_EQ),
     (27, ''|'', anon_sym_PIPE), (27, ''^'', anon_sym_CARET), (27, ''&'', anon_sym_AMP),
     (27, ''<<'', anon_sym_LT_LT), (27, ''>>'', anon_sym_GT_GT),
     (27, ''>>>'', anon_sym_GT_GT_GT), (27, ''+'', sym__additive_operator),
     (27, ''*'', anon_sym_STAR), (27, ''/'', anon_sym_SLASH), (27, ''%'', anon_sym_PERCENT),
     (27, ''~/'', anon_sym_TILDE_SLASH), (27, ''as'', anon_sym_as), (27, ''.'', anon_sym_DOT),
     (27, ''..'', anon_sym_DOT_DOT), (27, ''?..'', anon_sym_QMARK_DOT_DOT),
     (27, '';'', anon_sym_SEMI), (27, ''=>'', anon_sym_EQ_GT), (27, ''&&'', anon_sym_AMP_AMP),
     (27, ''||'', anon_sym_PIPE_PIPE), (27, ''//'', anon_sym_SLASH_SLASH),
     (27, ''/*'', anon_sym_SLASH_STAR), (27, ''///'', anon_sym_SLASH_SLASH_SLASH),
     (28, ''{'', anon_sym_LBRACE), (28, '','', anon_sym_COMMA), (28, ''('', anon_sym_LPAREN),
     (28, ''??'', anon_sym_QMARK_QMARK), (28, ''?'', anon_sym_QMARK),
     (28, ''!='', sym_equality_operator), (28, ''<'', anon_sym_LT), (28, ''>'', anon_sym_GT),
     (28, ''<='', anon_sym_LT_EQ), (28, ''>='', anon_sym_GT_EQ), (28, ''|'', anon_sym_PIPE),
     (28, ''^'', anon_sym_CARET), (28, ''&'', anon_sym_AMP), (28, ''<<'', anon_sym_LT_LT),
     (28, ''>>'', anon_sym_GT_GT), (28, ''>>>'', anon_sym_GT_GT_GT),
     (28, ''+'', sym__additive_operator), (28, ''*'', anon_sym_STAR),
     (28, ''/'', anon_sym_SLASH), (28, ''%'', anon_sym_PERCENT),
     (28, ''~/'', anon_sym_TILDE_SLASH), (28, ''as'', anon_sym_as), (28, ''.'', anon_sym_DOT),
     (28, ''..'', anon_sym_DOT_DOT), (28, ''?..'', anon_sym_QMARK_DOT_DOT),
     (28, '';'', anon_sym_SEMI), (28, ''=>'', anon_sym_EQ_GT), (28, ''async'', anon_sym_async),
     (28, ''async*'', anon_sym_async_STAR), (28, ''sync*'', anon_sym_sync_STAR),
     (28, ''&&'', anon_sym_AMP_AMP), (28, ''||'', anon_sym_PIPE_PIPE),
     (28, ''//'', anon_sym_SLASH_SLASH)]"

definition lexed_tokens_6 :: "(TSStateId \<times> string \<times> TSSymbol) list" where
  "lexed_tokens_6 = [
     (28, ''/*'', anon_sym_SLASH_STAR), (28, ''///'', anon_sym_SLASH_SLASH_SLASH),
     (29, [CHR 0x22], anon_sym_DQUOTE), (29, [CHR 0x27], anon_sym_SQUOTE),
     (29, [CHR 0x22, CHR 0x22, CHR 0x22], anon_sym_DQUOTE_DQUOTE_DQUOTE),
     (29, ''$'', anon_sym_DOLLAR), (29, ''0'', aux_sym__sub_string_test_token1),
     (29, [CHR 0x5C, CHR ''a''], sym__unused_escape_sequence),
     (29, ''//'', anon_sym_SLASH_SLASH), (29, ''/*'', anon_sym_SLASH_STAR),
     (29, ''///'', anon_sym_SLASH_SLASH_SLASH), (32, [CHR 0x22], anon_sym_DQUOTE),
     (32, [CHR 0x27], anon_sym_SQUOTE),
     (32, [CHR 0x27, CHR 0x27, CHR 0x27], anon_sym_SQUOTE_SQUOTE_SQUOTE),
     (32, ''$'', anon_sym_DOLLAR), (32, ''0'', aux_sym__sub_string_test_token1),
     (32, [CHR 0x5C, CHR ''a''], sym__unused_escape_sequence),
     (32, ''//'', anon_sym_SLASH_SLASH), (32, ''/*'', anon_sym_SLASH_STAR),
     (32, ''///'', anon_sym_SLASH_SLASH_SLASH), (33, [CHR 0x22], anon_sym_DQUOTE),
     (33, [CHR 0x27], anon_sym_SQUOTE), (33, ''$'', anon_sym_DOLLAR),
     (33, [CHR 0x5C, CHR ''a''], sym__unused_escape_sequence),
     (33, ''//'', anon_sym_SLASH_SLASH), (33, ''/*'', anon_sym_SLASH_STAR),
     (33, ''///'', anon_sym_SLASH_SLASH_SLASH), (35, [CHR 0x22], anon_sym_DQUOTE),
     (35, [CHR 0x27], anon_sym_SQUOTE), (35, ''$'', anon_sym_DOLLAR),
     (35, ''0'', aux_sym__sub_string_test_token1),
     (35, [CHR 0x5C, CHR ''a''], sym__unused_escape_sequence),
     (35, ''//'', anon_sym_SLASH_SLASH), (35, ''/*'', anon_sym_SLASH_STAR),
     (35, ''///'', anon_sym_SLASH_SLASH_SLASH), (38, ''a'', sym_identifier),
     (38, ''{'', anon_sym_LBRACE), (38, ''}'', anon_sym_RBRACE), (38, ''['', anon_sym_LBRACK),
     (38, '','', anon_sym_COMMA), (38, '']'', anon_sym_RBRACK), (38, '':'', anon_sym_COLON),
     (38, ''('', anon_sym_LPAREN), (38, '')'', anon_sym_RPAREN), (38, ''='', anon_sym_EQ),
     (38, ''?'', anon_sym_QMARK), (38, ''<'', anon_sym_LT), (38, ''>'', anon_sym_GT),
     (38, ''.'', anon_sym_DOT), (38, '';'', anon_sym_SEMI), (38, ''=>'', anon_sym_EQ_GT),
     (38, ''@'', anon_sym_AT), (38, ''&&'', anon_sym_AMP_AMP), (38, ''||'', anon_sym_PIPE_PIPE),
     (38, ''//'', anon_sym_SLASH_SLASH), (38, ''/*'', anon_sym_SLASH_STAR),
     (38, ''///'', anon_sym_SLASH_SLASH_SLASH), (41, ''a'', sym_identifier),
     (41, ''{'', anon_sym_LBRACE), (41, ''}'', anon_sym_RBRACE), (41, '','', anon_sym_COMMA),
     (41, '']'', anon_sym_RBRACK), (41, '':'', anon_sym_COLON), (41, '')'', anon_sym_RPAREN),
     (41, ''='', anon_sym_EQ), (41, ''?'', anon_sym_QMARK), (41, '';'', anon_sym_SEMI),
     (41, ''=>'', anon_sym_EQ_GT), (41, ''async'', anon_sym_async),
     (41, ''async*'', anon_sym_async_STAR), (41, ''sync*'', anon_sym_sync_STAR),
     (41, ''//'', anon_sym_SLASH_SLASH), (41, ''/*'', anon_sym_SLASH_STAR),
     (41, ''///'', anon_sym_SLASH_SLASH_SLASH), (45, ''//'', anon_sym_SLASH_SLASH),
     (45, ''/*'', anon_sym_SLASH_STAR), (45, ''*'', aux_sym_comment_token2),
     (45, ''///'', anon_sym_SLASH_SLASH_SLASH), (54, ''{'', anon_sym_LBRACE),
     (54, ''0'', aux_sym__sub_string_test_token1), (54, ''a'', sym_identifier_dollar_escaped),
     (54, ''//'', anon_sym_SLASH_SLASH), (54, ''/*'', anon_sym_SLASH_STAR),
     (54, ''///'', anon_sym_SLASH_SLASH_SLASH), (100, [], ts_builtin_sym_end),
     (100, ''a'', sym_identifier), (100, [CHR 0x22], anon_sym_DQUOTE),
     (100, [CHR 0x27], anon_sym_SQUOTE),
     (100, [CHR 0x22, CHR 0x22, CHR 0x22], anon_sym_DQUOTE_DQUOTE_DQUOTE),
     (100, [CHR 0x27, CHR 0x27, CHR 0x27], anon_sym_SQUOTE_SQUOTE_SQUOTE),
     (100, ''}'', anon_sym_RBRACE), (100, ''['', anon_sym_LBRACK), (100, '','', anon_sym_COMMA),
     (100, '']'', anon_sym_RBRACK), (100, '':'', anon_sym_COLON), (100, ''('', anon_sym_LPAREN),
     (100, '')'', anon_sym_RPAREN), (100, ''='', anon_sym_EQ), (100, ''?'', anon_sym_QMARK),
     (100, ''<'', anon_sym_LT), (100, ''>'', anon_sym_GT), (100, ''!'', anon_sym_BANG),
     (100, ''.'', anon_sym_DOT), (100, ''?.'', anon_sym_QMARK_DOT), (100, '';'', anon_sym_SEMI),
     (100, ''@'', anon_sym_AT), (100, ''#!'', anon_sym_POUND_BANG),
     (100, ''part of'', sym_part_of_builtin), (100, ''//'', anon_sym_SLASH_SLASH),
     (100, ''/*'', anon_sym_SLASH_STAR), (100, ''///'', anon_sym_SLASH_SLASH_SLASH),
     (101, [], ts_builtin_sym_end), (101, ''a'', sym_identifier), (101, ''#'', anon_sym_POUND),
     (101, ''0'', sym_decimal_integer_literal), (101, ''0xa'', sym_hex_integer_literal),
     (101, ''.0'', sym_decimal_floating_point_literal), (101, [CHR 0x22], anon_sym_DQUOTE),
     (101, [CHR 0x27], anon_sym_SQUOTE),
     (101, [CHR 0x22, CHR 0x22, CHR 0x22], anon_sym_DQUOTE_DQUOTE_DQUOTE),
     (101, [CHR 0x27, CHR 0x27, CHR 0x27], anon_sym_SQUOTE_SQUOTE_SQUOTE),
     (101, ''{'', anon_sym_LBRACE), (101, ''}'', anon_sym_RBRACE), (101, ''['', anon_sym_LBRACK),
     (101, '','', anon_sym_COMMA), (101, '']'', anon_sym_RBRACK), (101, '':'', anon_sym_COLON),
     (101, ''('', anon_sym_LPAREN), (101, '')'', anon_sym_RPAREN), (101, ''='', anon_sym_EQ),
     (101, ''?'', anon_sym_QMARK), (101, ''<'', anon_sym_LT), (101, ''>'', anon_sym_GT),
     (101, ''*'', anon_sym_STAR), (101, ''++'', sym_increment_operator),
     (101, ''...'', anon_sym_DOT_DOT_DOT), (101, ''-'', sym_minus_operator),
     (101, ''!'', anon_sym_BANG), (101, ''~'', anon_sym_TILDE), (101, '';'', anon_sym_SEMI),
     (101, ''=>'', anon_sym_EQ_GT), (101, ''@'', anon_sym_AT), (101, ''&&'', anon_sym_AMP_AMP),
     (101, ''||'', anon_sym_PIPE_PIPE), (101, ''//'', anon_sym_SLASH_SLASH),
     (101, ''/*'', anon_sym_SLASH_STAR), (101, ''///'', anon_sym_SLASH_SLASH_SLASH),
     (102, [], ts_builtin_sym_end), (102, ''a'', sym_identifier), (102, ''#'', anon_sym_POUND),
     (102, ''0'', sym_decimal_integer_literal), (102, ''0xa'', sym_hex_integer_literal),
     (102, ''.0'', sym_decimal_floating_point_literal), (102, [CHR 0x22], anon_sym_DQUOTE),
     (102, [CHR 0x27], anon_sym_SQUOTE),
     (102, [CHR 0x22, CHR 0x22, CHR 0x22], anon_sym_DQUOTE_DQUOTE_DQUOTE),
     (102, [CHR 0x27, CHR 0x27, CHR 0x27], anon_sym_SQUOTE_SQUOTE_SQUOTE),
     (102, ''{'', anon_sym_LBRACE), (102, ''}'', anon_sym_RBRACE), (102, ''['', anon_sym_LBRACK),
     (102, '','', anon_sym_COMMA), (102, '']'', anon_sym_RBRACK), (102, '':'', anon_sym_COLON),
     (102, ''('', anon_sym_LPAREN), (102, '')'', anon_sym_RPAREN), (102, ''?'', anon_sym_QMARK),
     (102, ''<'', anon_sym_LT), (102, ''>'', anon_sym_GT), (102, ''++'', sym_increment_operator),
     (102, ''-'', sym_minus_operator), (102, ''!'', anon_sym_BANG), (102, ''~'', anon_sym_TILDE),
     (102, ''.'', anon_sym_DOT), (102, ''?.'', anon_sym_QMARK_DOT), (102, '';'', anon_sym_SEMI),
     (102, ''=>'', anon_sym_EQ_GT), (102, ''@'', anon_sym_AT), (102, ''=='', anon_sym_EQ_EQ),
     (102, ''&&'', anon_sym_AMP_AMP), (102, ''||'', anon_sym_PIPE_PIPE),
     (102, ''//'', anon_sym_SLASH_SLASH), (102, ''/*'', anon_sym_SLASH_STAR),
     (102, ''///'', anon_sym_SLASH_SLASH_SLASH), (276, '' //'', anon_sym_SLASH_SLASH),
     (276, ''a'', aux_sym_comment_token1), (276, '' /*'', anon_sym_SLASH_STAR),
     (276, '' ///'', anon_sym_SLASH_SLASH_SLASH), (290, ''//'', anon_sym_SLASH_SLASH),
     (290, ''/*'', anon_sym_SLASH_STAR), (290, ''///'', anon_sym_SLASH_SLASH_SLASH),
     (290, ''a'', aux_sym_documentation_comment_token1)]"

definition captured_words_1 :: "(TSStateId \<times> string \<times> TSSymbol) list" where
  "captured_words_1 = [
     (0, ''true'', anon_sym_true), (0, ''false'', anon_sym_false), (0, ''null'', anon_sym_null),
     (0, ''throw'', anon_sym_throw), (0, ''await'', anon_sym_await), (0, ''is'', anon_sym_is),
     (0, ''extends'', anon_sym_extends), (0, ''switch'', anon_sym_switch),
     (0, ''when'', anon_sym_when), (0, ''default'', anon_sym_default), (0, ''do'', anon_sym_do),
     (0, ''while'', anon_sym_while), (0, ''continue'', anon_sym_continue),
     (0, ''yield'', anon_sym_yield), (0, ''return'', anon_sym_return), (0, ''on'', anon_sym_on),
     (0, ''try'', anon_sym_try), (0, ''catch'', anon_sym_catch),
     (0, ''finally'', anon_sym_finally), (0, ''if'', anon_sym_if), (0, ''case'', anon_sym_case),
     (0, ''else'', anon_sym_else), (0, ''for'', anon_sym_for), (0, ''in'', anon_sym_in),
     (0, ''part'', anon_sym_part), (0, ''show'', anon_sym_show), (0, ''hide'', anon_sym_hide),
     (0, ''enum'', anon_sym_enum), (0, ''final'', anon_sym_final),
     (0, ''inline'', anon_sym_inline), (0, ''class'', anon_sym_class),
     (0, ''extension'', anon_sym_extension), (0, ''with'', anon_sym_with),
     (0, ''double'', sym_floating_point_type), (0, ''bool'', anon_sym_bool),
     (0, ''void'', sym_void_type), (0, ''var'', anon_sym_var),
     (0, ''library'', anon_sym_library), (0, ''break'', sym_break_builtin),
     (0, ''assert'', sym_assert_builtin), (0, ''rethrow'', sym_rethrow_builtin),
     (0, ''covariant'', anon_sym_covariant), (0, ''deferred'', anon_sym_deferred),
     (0, ''dynamic'', anon_sym_dynamic), (0, ''export'', anon_sym_export),
     (0, ''factory'', anon_sym_factory), (0, ''Function'', anon_sym_Function),
     (0, ''get'', anon_sym_get), (0, ''native'', anon_sym_native),
     (0, ''implements'', anon_sym_implements), (0, ''import'', anon_sym_import),
     (0, ''interface'', anon_sym_interface), (0, ''base'', anon_sym_base),
     (0, ''abstract'', anon_sym_abstract), (0, ''sealed'', anon_sym_sealed),
     (0, ''operator'', anon_sym_operator), (0, ''mixin'', anon_sym_mixin),
     (0, ''required'', anon_sym_required), (0, ''set'', anon_sym_set),
     (0, ''static'', anon_sym_static), (0, ''typedef'', anon_sym_typedef),
     (0, ''new'', anon_sym_new), (0, ''const'', sym_const_builtin), (0, ''late'', anon_sym_late),
     (0, ''external'', anon_sym_external), (0, ''this'', anon_sym_this),
     (0, ''super'', anon_sym_super), (3, ''true'', anon_sym_true),
     (3, ''false'', anon_sym_false), (3, ''null'', anon_sym_null),
     (3, ''throw'', anon_sym_throw), (3, ''await'', anon_sym_await), (3, ''is'', anon_sym_is),
     (3, ''switch'', anon_sym_switch), (3, ''default'', anon_sym_default),
     (3, ''do'', anon_sym_do), (3, ''while'', anon_sym_while),
     (3, ''continue'', anon_sym_continue), (3, ''yield'', anon_sym_yield),
     (3, ''return'', anon_sym_return), (3, ''try'', anon_sym_try), (3, ''if'', anon_sym_if),
     (3, ''case'', anon_sym_case), (3, ''else'', anon_sym_else), (3, ''for'', anon_sym_for),
     (3, ''show'', anon_sym_show), (3, ''hide'', anon_sym_hide), (3, ''final'', anon_sym_final),
     (3, ''void'', sym_void_type), (3, ''var'', anon_sym_var), (3, ''break'', sym_break_builtin),
     (3, ''assert'', sym_assert_builtin), (3, ''rethrow'', sym_rethrow_builtin),
     (3, ''covariant'', anon_sym_covariant), (3, ''deferred'', anon_sym_deferred),
     (3, ''Function'', anon_sym_Function), (3, ''get'', anon_sym_get),
     (3, ''set'', anon_sym_set), (3, ''new'', anon_sym_new), (3, ''const'', sym_const_builtin),
     (3, ''late'', anon_sym_late), (3, ''this'', anon_sym_this), (3, ''super'', anon_sym_super),
     (4, ''true'', anon_sym_true), (4, ''false'', anon_sym_false), (4, ''null'', anon_sym_null),
     (4, ''throw'', anon_sym_throw), (4, ''await'', anon_sym_await),
     (4, ''switch'', anon_sym_switch), (4, ''if'', anon_sym_if), (4, ''for'', anon_sym_for),
     (4, ''final'', anon_sym_final), (4, ''void'', sym_void_type), (4, ''var'', anon_sym_var),
     (4, ''rethrow'', sym_rethrow_builtin), (4, ''covariant'', anon_sym_covariant),
     (4, ''Function'', anon_sym_Function), (4, ''new'', anon_sym_new),
     (4, ''const'', sym_const_builtin), (4, ''late'', anon_sym_late),
     (4, ''this'', anon_sym_this), (4, ''super'', anon_sym_super), (5, ''is'', anon_sym_is),
     (5, ''when'', anon_sym_when), (6, ''is'', anon_sym_is), (6, ''when'', anon_sym_when),
     (6, ''while'', anon_sym_while), (6, ''if'', anon_sym_if), (6, ''case'', anon_sym_case),
     (6, ''else'', anon_sym_else), (6, ''show'', anon_sym_show), (6, ''hide'', anon_sym_hide),
     (6, ''deferred'', anon_sym_deferred), (6, ''Function'', anon_sym_Function),
     (7, ''is'', anon_sym_is), (7, ''Function'', anon_sym_Function), (8, ''is'', anon_sym_is),
     (8, ''when'', anon_sym_when), (9, ''is'', anon_sym_is), (9, ''when'', anon_sym_when),
     (9, ''case'', anon_sym_case), (9, ''else'', anon_sym_else), (9, ''in'', anon_sym_in),
     (9, ''Function'', anon_sym_Function), (9, ''get'', anon_sym_get),
     (9, ''set'', anon_sym_set), (9, ''this'', anon_sym_this), (9, ''super'', anon_sym_super),
     (10, ''is'', anon_sym_is), (10, ''when'', anon_sym_when), (10, ''case'', anon_sym_case),
     (10, ''else'', anon_sym_else), (11, ''is'', anon_sym_is), (12, ''is'', anon_sym_is),
     (13, ''is'', anon_sym_is), (13, ''when'', anon_sym_when), (14, ''is'', anon_sym_is),
     (14, ''when'', anon_sym_when), (14, ''case'', anon_sym_case), (14, ''else'', anon_sym_else),
     (15, ''is'', anon_sym_is), (19, ''when'', anon_sym_when), (22, ''case'', anon_sym_case),
     (22, ''else'', anon_sym_else), (22, ''native'', anon_sym_native),
     (23, ''case'', anon_sym_case), (23, ''else'', anon_sym_else), (24, ''when'', anon_sym_when),
     (24, ''in'', anon_sym_in), (24, ''Function'', anon_sym_Function),
     (25, ''true'', anon_sym_true), (25, ''false'', anon_sym_false),
     (25, ''null'', anon_sym_null), (25, ''default'', anon_sym_default),
     (25, ''case'', anon_sym_case), (25, ''final'', anon_sym_final),
     (25, ''void'', sym_void_type), (25, ''var'', anon_sym_var),
     (25, ''Function'', anon_sym_Function), (25, ''const'', sym_const_builtin),
     (26, ''is'', anon_sym_is)]"

definition captured_words_2 :: "(TSStateId \<times> string \<times> TSSymbol) list" where
  "captured_words_2 = [
     (26, ''when'', anon_sym_when), (26, ''Function'', anon_sym_Function),
     (27, ''is'', anon_sym_is), (27, ''case'', anon_sym_case), (27, ''else'', anon_sym_else),
     (27, ''Function'', anon_sym_Function), (28, ''is'', anon_sym_is),
     (28, ''Function'', anon_sym_Function), (38, ''extends'', anon_sym_extends),
     (38, ''when'', anon_sym_when), (38, ''on'', anon_sym_on), (38, ''catch'', anon_sym_catch),
     (38, ''part'', anon_sym_part), (38, ''enum'', anon_sym_enum),
     (38, ''final'', anon_sym_final), (38, ''inline'', anon_sym_inline),
     (38, ''class'', anon_sym_class), (38, ''extension'', anon_sym_extension),
     (38, ''with'', anon_sym_with), (38, ''void'', sym_void_type), (38, ''var'', anon_sym_var),
     (38, ''covariant'', anon_sym_covariant), (38, ''factory'', anon_sym_factory),
     (38, ''Function'', anon_sym_Function), (38, ''get'', anon_sym_get),
     (38, ''implements'', anon_sym_implements), (38, ''interface'', anon_sym_interface),
     (38, ''base'', anon_sym_base), (38, ''abstract'', anon_sym_abstract),
     (38, ''sealed'', anon_sym_sealed), (38, ''operator'', anon_sym_operator),
     (38, ''mixin'', anon_sym_mixin), (38, ''required'', anon_sym_required),
     (38, ''set'', anon_sym_set), (38, ''static'', anon_sym_static),
     (38, ''typedef'', anon_sym_typedef), (38, ''const'', sym_const_builtin),
     (38, ''late'', anon_sym_late), (38, ''external'', anon_sym_external),
     (38, ''this'', anon_sym_this), (38, ''super'', anon_sym_super),
     (41, ''Function'', anon_sym_Function), (41, ''get'', anon_sym_get),
     (41, ''native'', anon_sym_native), (41, ''set'', anon_sym_set),
     (41, ''this'', anon_sym_this), (41, ''super'', anon_sym_super),
     (100, ''part'', anon_sym_part), (100, ''enum'', anon_sym_enum),
     (100, ''final'', anon_sym_final), (100, ''inline'', anon_sym_inline),
     (100, ''class'', anon_sym_class), (100, ''extension'', anon_sym_extension),
     (100, ''void'', sym_void_type), (100, ''var'', anon_sym_var),
     (100, ''library'', anon_sym_library), (100, ''export'', anon_sym_export),
     (100, ''Function'', anon_sym_Function), (100, ''get'', anon_sym_get),
     (100, ''import'', anon_sym_import), (100, ''interface'', anon_sym_interface),
     (100, ''base'', anon_sym_base), (100, ''abstract'', anon_sym_abstract),
     (100, ''sealed'', anon_sym_sealed), (100, ''mixin'', anon_sym_mixin),
     (100, ''set'', anon_sym_set), (100, ''typedef'', anon_sym_typedef),
     (100, ''const'', sym_const_builtin), (100, ''late'', anon_sym_late),
     (100, ''external'', anon_sym_external), (101, ''true'', anon_sym_true),
     (101, ''false'', anon_sym_false), (101, ''null'', anon_sym_null),
     (101, ''throw'', anon_sym_throw), (101, ''await'', anon_sym_await),
     (101, ''extends'', anon_sym_extends), (101, ''switch'', anon_sym_switch),
     (101, ''when'', anon_sym_when), (101, ''default'', anon_sym_default),
     (101, ''do'', anon_sym_do), (101, ''while'', anon_sym_while),
     (101, ''continue'', anon_sym_continue), (101, ''yield'', anon_sym_yield),
     (101, ''return'', anon_sym_return), (101, ''on'', anon_sym_on),
     (101, ''try'', anon_sym_try), (101, ''catch'', anon_sym_catch),
     (101, ''finally'', anon_sym_finally), (101, ''if'', anon_sym_if),
     (101, ''case'', anon_sym_case), (101, ''else'', anon_sym_else),
     (101, ''for'', anon_sym_for), (101, ''in'', anon_sym_in), (101, ''part'', anon_sym_part),
     (101, ''show'', anon_sym_show), (101, ''hide'', anon_sym_hide),
     (101, ''enum'', anon_sym_enum), (101, ''final'', anon_sym_final),
     (101, ''inline'', anon_sym_inline), (101, ''class'', anon_sym_class),
     (101, ''extension'', anon_sym_extension), (101, ''with'', anon_sym_with),
     (101, ''void'', sym_void_type), (101, ''var'', anon_sym_var),
     (101, ''break'', sym_break_builtin), (101, ''assert'', sym_assert_builtin),
     (101, ''rethrow'', sym_rethrow_builtin), (101, ''covariant'', anon_sym_covariant),
     (101, ''export'', anon_sym_export), (101, ''factory'', anon_sym_factory),
     (101, ''Function'', anon_sym_Function), (101, ''get'', anon_sym_get),
     (101, ''native'', anon_sym_native), (101, ''implements'', anon_sym_implements),
     (101, ''import'', anon_sym_import), (101, ''interface'', anon_sym_interface),
     (101, ''base'', anon_sym_base), (101, ''abstract'', anon_sym_abstract),
     (101, ''sealed'', anon_sym_sealed), (101, ''operator'', anon_sym_operator),
     (101, ''mixin'', anon_sym_mixin), (101, ''required'', anon_sym_required),
     (101, ''set'', anon_sym_set), (101, ''static'', anon_sym_static),
     (101, ''typedef'', anon_sym_typedef), (101, ''new'', anon_sym_new),
     (101, ''const'', sym_const_builtin), (101, ''late'', anon_sym_late),
     (101, ''external'', anon_sym_external), (101, ''this'', anon_sym_this),
     (101, ''super'', anon_sym_super), (102, ''true'', anon_sym_true),
     (102, ''false'', anon_sym_false), (102, ''null'', anon_sym_null),
     (102, ''throw'', anon_sym_throw), (102, ''await'', anon_sym_await),
     (102, ''switch'', anon_sym_switch), (102, ''when'', anon_sym_when),
     (102, ''default'', anon_sym_default), (102, ''do'', anon_sym_do),
     (102, ''while'', anon_sym_while), (102, ''continue'', anon_sym_continue),
     (102, ''yield'', anon_sym_yield), (102, ''return'', anon_sym_return),
     (102, ''try'', anon_sym_try), (102, ''catch'', anon_sym_catch), (102, ''if'', anon_sym_if),
     (102, ''case'', anon_sym_case), (102, ''else'', anon_sym_else),
     (102, ''for'', anon_sym_for), (102, ''enum'', anon_sym_enum),
     (102, ''final'', anon_sym_final), (102, ''inline'', anon_sym_inline),
     (102, ''class'', anon_sym_class), (102, ''extension'', anon_sym_extension),
     (102, ''with'', anon_sym_with), (102, ''void'', sym_void_type),
     (102, ''var'', anon_sym_var), (102, ''break'', sym_break_builtin),
     (102, ''assert'', sym_assert_builtin), (102, ''rethrow'', sym_rethrow_builtin),
     (102, ''covariant'', anon_sym_covariant), (102, ''factory'', anon_sym_factory),
     (102, ''Function'', anon_sym_Function), (102, ''get'', anon_sym_get),
     (102, ''implements'', anon_sym_implements), (102, ''interface'', anon_sym_interface),
     (102, ''base'', anon_sym_base), (102, ''abstract'', anon_sym_abstract),
     (102, ''sealed'', anon_sym_sealed), (102, ''operator'', anon_sym_operator),
     (102, ''mixin'', anon_sym_mixin), (102, ''set'', anon_sym_set),
     (102, ''static'', anon_sym_static), (102, ''typedef'', anon_sym_typedef),
     (102, ''new'', anon_sym_new), (102, ''const'', sym_const_builtin),
     (102, ''late'', anon_sym_late), (102, ''external'', anon_sym_external),
     (102, ''this'', anon_sym_this), (102, ''super'', anon_sym_super)]"

lemmas lexes_simps = lexes_def mode_jump_eqs mode_end_eqs

lemma lexed_tokens_1_lexed: "list_all (\<lambda>(s, w, t). lexes s w t) lexed_tokens_1"
  by (simp add: lexes_simps lexed_tokens_1_def)

lemma lexed_tokens_2_lexed: "list_all (\<lambda>(s, w, t). lexes s w t) lexed_tokens_2"
  by (simp add: lexes_simps lexed_tokens_2_def)

lemma lexed_tokens_3_lexed: "list_all (\<lambda>(s, w, t). lexes s w t) lexed_tokens_3"
  by (simp add: lexes_simps lexed_tokens_3_def)

lemma lexed_tokens_4_lexed: "list_all (\<lambda>(s, w, t). lexes s w t) lexed_tokens_4"
  by (simp add: lexes_simps lexed_tokens_4_def)

lemma lexed_tokens_5_lexed: "list_all (\<lambda>(s, w, t). lexes s w t) lexed_tokens_5"
  by (simp add: lexes_simps lexed_tokens_5_def)

lemma lexed_tokens_6_lexed: "list_all (\<lambda>(s, w, t). lexes s w t) lexed_tokens_6"
  by (simp add: lexes_simps lexed_tokens_6_def)

definition captured :: "TSStateId \<Rightarrow> string \<Rightarrow> TSSymbol \<Rightarrow> bool" where
  "captured s w t \<longleftrightarrow> lexes s w sym_identifier \<and> map_of dart_keywords w = Some t"

lemma keyword_of: "list_all (\<lambda>(w, t). map_of dart_keywords w = Some t) dart_keywords"
  by (rule map_of_all [OF dart_keywords_distinct])

lemmas keyword_of_eqs = keyword_of [unfolded dart_keywords_def list.pred_inject prod.case, folded dart_keywords_def]

lemma captured_words_1_captured: "list_all (\<lambda>(s, w, t). captured s w t) captured_words_1"
  by (simp add: captured_def lexes_simps keyword_of_eqs captured_words_1_def)

lemma captured_words_2_captured: "list_all (\<lambda>(s, w, t). captured s w t) captured_words_2"
  by (simp add: captured_def lexes_simps keyword_of_eqs captured_words_2_def)

definition raw_openers :: "(TSStateId \<times> string \<times> TSSymbol) list" where
  "raw_openers = [
     (0, [CHR ''r'', CHR 0x22], anon_sym_r_DQUOTE),
     (0, [CHR ''r'', CHR 0x27], anon_sym_r_SQUOTE),
     (0, [CHR ''r'', CHR 0x22, CHR 0x22, CHR 0x22], anon_sym_r_DQUOTE_DQUOTE_DQUOTE),
     (0, [CHR ''r'', CHR 0x27, CHR 0x27, CHR 0x27], anon_sym_r_SQUOTE_SQUOTE_SQUOTE),
     (3, [CHR ''r'', CHR 0x22], anon_sym_r_DQUOTE),
     (3, [CHR ''r'', CHR 0x27], anon_sym_r_SQUOTE),
     (3, [CHR ''r'', CHR 0x22, CHR 0x22, CHR 0x22], anon_sym_r_DQUOTE_DQUOTE_DQUOTE),
     (3, [CHR ''r'', CHR 0x27, CHR 0x27, CHR 0x27], anon_sym_r_SQUOTE_SQUOTE_SQUOTE),
     (4, [CHR ''r'', CHR 0x22], anon_sym_r_DQUOTE),
     (4, [CHR ''r'', CHR 0x27], anon_sym_r_SQUOTE),
     (4, [CHR ''r'', CHR 0x22, CHR 0x22, CHR 0x22], anon_sym_r_DQUOTE_DQUOTE_DQUOTE),
     (4, [CHR ''r'', CHR 0x27, CHR 0x27, CHR 0x27], anon_sym_r_SQUOTE_SQUOTE_SQUOTE),
     (5, [CHR ''r'', CHR 0x22], anon_sym_r_DQUOTE),
     (5, [CHR ''r'', CHR 0x27], anon_sym_r_SQUOTE),
     (5, [CHR ''r'', CHR 0x22, CHR 0x22, CHR 0x22], anon_sym_r_DQUOTE_DQUOTE_DQUOTE),
     (5, [CHR ''r'', CHR 0x27, CHR 0x27, CHR 0x27], anon_sym_r_SQUOTE_SQUOTE_SQUOTE),
     (6, [CHR ''r'', CHR 0x22], anon_sym_r_DQUOTE),
     (6, [CHR ''r'', CHR 0x27], anon_sym_r_SQUOTE),
     (6, [CHR ''r'', CHR 0x22, CHR 0x22, CHR 0x22], anon_sym_r_DQUOTE_DQUOTE_DQUOTE),
     (6, [CHR ''r'', CHR 0x27, CHR 0x27, CHR 0x27], anon_sym_r_SQUOTE_SQUOTE_SQUOTE),
     (7, [CHR ''r'', CHR 0x22], anon_sym_r_DQUOTE),
     (7, [CHR ''r'', CHR 0x27], anon_sym_r_SQUOTE),
     (7, [CHR ''r'', CHR 0x22, CHR 0x22, CHR 0x22], anon_sym_r_DQUOTE_DQUOTE_DQUOTE),
     (7, [CHR ''r'', CHR 0x27, CHR 0x27, CHR 0x27], anon_sym_r_SQUOTE_SQUOTE_SQUOTE),
     (19, [CHR ''r'', CHR 0x22], anon_sym_r_DQUOTE),
     (19, [CHR ''r'', CHR 0x27], anon_sym_r_SQUOTE),
     (19, [CHR ''r'', CHR 0x22, CHR 0x22, CHR 0x22], anon_sym_r_DQUOTE_DQUOTE_DQUOTE),
     (19, [CHR ''r'', CHR 0x27, CHR 0x27, CHR 0x27], anon_sym_r_SQUOTE_SQUOTE_SQUOTE),
     (25, [CHR ''r'', CHR 0x22], anon_sym_r_DQUOTE),
     (25, [CHR ''r'', CHR 0x27], anon_sym_r_SQUOTE),
     (25, [CHR ''r'', CHR 0x22, CHR 0x22, CHR 0x22], anon_sym_r_DQUOTE_DQUOTE_DQUOTE),
     (25, [CHR ''r'', CHR 0x27, CHR 0x27, CHR 0x27], anon_sym_r_SQUOTE_SQUOTE_SQUOTE),
     (100, [CHR ''r'', CHR 0x22], anon_sym_r_DQUOTE),
     (100, [CHR ''r'', CHR 0x27], anon_sym_r_SQUOTE),
     (100, [CHR ''r'', CHR 0x22, CHR 0x22, CHR 0x22], anon_sym_r_DQUOTE_DQUOTE_DQUOTE),
     (100, [CHR ''r'', CHR 0x27, CHR 0x27, CHR 0x27], anon_sym_r_SQUOTE_SQUOTE_SQUOTE),
     (101, [CHR ''r'', CHR 0x22], anon_sym_r_DQUOTE),
     (101, [CHR ''r'', CHR 0x27], anon_sym_r_SQUOTE),
     (101, [CHR ''r'', CHR 0x22, CHR 0x22, CHR 0x22], anon_sym_r_DQUOTE_DQUOTE_DQUOTE),
     (101, [CHR ''r'', CHR 0x27, CHR 0x27, CHR 0x27], anon_sym_r_SQUOTE_SQUOTE_SQUOTE),
     (102, [CHR ''r'', CHR 0x22], anon_sym_r_DQUOTE),
     (102, [CHR ''r'', CHR 0x27], anon_sym_r_SQUOTE),
     (102, [CHR ''r'', CHR 0x22, CHR 0x22, CHR 0x22], anon_sym_r_DQUOTE_DQUOTE_DQUOTE),
     (102, [CHR ''r'', CHR 0x27, CHR 0x27, CHR 0x27], anon_sym_r_SQUOTE_SQUOTE_SQUOTE)]"

lemma raw_openers_lexed: "list_all (\<lambda>(s, w, t). lexes s w t) raw_openers"
  by (simp add: lexes_simps raw_openers_def)

subsection \<open>Texts the external scanner leaves alone\<close>

text \<open>
  The external scanner runs first. It finds nothing in a text that has a quote or a dollar sign at its
  front, or no quote, dollar sign or backslash behind its front to end a string text, and no closed
  comment.
\<close>

definition quiet :: "string \<Rightarrow> bool" where
  "quiet w \<longleftrightarrow> length w < 2 ^ 32 \<and>
     (case codes w of
        [] \<Rightarrow> True
      | c # cs \<Rightarrow> c \<in> {c_SQUOTE, c_DQUOTE, c_DOLLAR} \<or>
          list_all (\<lambda>c. c \<notin> {c_SQUOTE, c_DQUOTE, c_DOLLAR, c_BSLASH}) cs) \<and>
     (let inp = dropWhile iswspace (codes w) in
      prefix (codes ''/*'') inp \<longrightarrow> close_comment 1 (comment_tokens (drop 2 inp)) = None)"

lemma template_stop_set: "template_stop inp \<Longrightarrow> \<exists>c \<in> set inp. c \<in> {c_SQUOTE, c_DQUOTE, c_DOLLAR, c_BSLASH}"
  by (cases inp) (auto simp: template_stop_def)

lemma quiet_scanned:
  assumes "quiet w"
  shows "scanned vs (codes w) = None"
proof (cases "codes w")
  case Nil
  then show ?thesis by (simp add: scanned_def Let_def)
next
  case (Cons c cs)
  let ?e = "dropWhile (template_char vs) cs"
  have "\<not> template_stop ?e \<or> \<not> template_char vs c"
  proof (rule ccontr)
    assume "\<not> ?thesis"
    then have "template_stop ?e" "template_char vs c" by simp_all
    from template_stop_set [OF this(1)] obtain d where
      "d \<in> set cs" "d \<in> {c_SQUOTE, c_DQUOTE, c_DOLLAR, c_BSLASH}" by (blast dest: set_dropWhileD)
    moreover have "c \<notin> {c_SQUOTE, c_DQUOTE, c_DOLLAR}" using \<open>template_char vs c\<close>
      by (simp add: template_char_def)
    ultimately show False using assms Cons by (auto simp: quiet_def list_all_iff)
  qed
  moreover have "prefix (codes ''/*'') (dropWhile iswspace (codes w)) \<longrightarrow>
      close_comment 1 (comment_tokens (drop 2 (dropWhile iswspace (codes w)))) = None"
    using assms by (simp add: quiet_def Let_def)
  ultimately show ?thesis unfolding scanned_def Let_def Cons by (auto simp: template_stop_set)
qed

definition lexer_words :: "string list" where
  "lexer_words = [
     [], [CHR 0x0A], '' /*'', '' //'', '' ///'', ''!'', ''!='', [CHR 0x22],
     [CHR 0x22, CHR 0x22, CHR 0x22], ''#'', ''#!'', ''$'', ''%'', ''%='', ''&'', ''&&'', ''&='',
     [CHR 0x27], [CHR 0x27, CHR 0x27, CHR 0x27], ''('', '')'', ''*'', ''*='', ''+'', ''++'',
     ''+='', '','', ''-'', ''-='', ''.'', ''..'', ''...'', ''.0'', ''/'', ''/*'', ''//'',
     ''///'', ''/='', ''0'', ''0xa'', '':'', '';'', ''<'', ''<<'', ''<<='', ''<='', ''='',
     ''=='', ''=>'', ''>'', ''>='', ''>>'', ''>>='', ''>>>'', ''>>>='', ''?'', ''?.'', ''?..'',
     ''??'', ''??='', ''@'', ''Function'', ''['', ''[]'', ''[]='', [CHR 0x5C, CHR ''a''], '']'',
     ''^'', ''^='', ''a'', ''abstract'', ''as'', ''assert'', ''async'', ''async*'', ''await'',
     ''base'', ''bool'', ''break'', ''case'', ''catch'', ''class'', ''const'', ''continue'',
     ''covariant'', ''default'', ''deferred'', ''do'', ''double'', ''dynamic'', ''else'',
     ''enum'', ''export'', ''extends'', ''extension'', ''external'', ''factory'', ''false'',
     ''final'', ''finally'', ''for'', ''get'', ''hide'', ''if'', ''implements'', ''import'',
     ''in'', ''inline'', ''interface'', ''is'', ''late'', ''library'', ''mixin'', ''native'',
     ''new'', ''null'', ''on'', ''operator'', ''part'', ''part of'', ''required'', ''rethrow'',
     ''return'', ''sealed'', ''set'', ''show'', ''static'', ''super'', ''switch'', ''sync*'',
     ''this'', ''throw'', ''true'', ''try'', ''typedef'', ''var'', ''void'', ''when'', ''while'',
     ''with'', ''yield'', ''{'', ''|'', ''|='', ''||'', ''}'', ''~'', ''~/'', ''~/='']"

lemma quiet_words: "list_all quiet lexer_words"
  by (simp add: lexer_words_def quiet_def iswspace_def)

lemmas quiet_eqs = quiet_words [unfolded lexer_words_def list_all_tens]

text \<open>The openers of raw strings: no comment, but a string text in the row where one is valid first.\<close>

definition raw_opener :: "string \<Rightarrow> bool" where
  "raw_opener w \<longleftrightarrow> length w < 2 ^ 32 \<and> scanned (ts_external_scanner_states ! 2) (codes w) = None \<and>
     (\<forall>inp. scanned (ts_external_scanner_states ! 1) (codes w @ inp) \<noteq> None)"

lemma raw_openers_raw: "list_all (\<lambda>(s, w, t). raw_opener w) raw_openers"
  by (simp add: raw_openers_def raw_opener_def scanned_def external_states_eq wants_template_def
      template_char_def template_stop_def iswspace_def)

subsection \<open>What a mode can deliver\<close>

text \<open>
  \<open>expects m t\<close>: in the mode \<open>m\<close> the terminal \<open>t\<close> can come from the lexers, namely as a token of the
  main lexer or as a reserved word the main lexer captures as an identifier, from a text the external
  scanner leaves alone, or as an external token the scanner finds in some text; or it is one of the
  terminals the scanner keeps away. Where the parser needs no lookahead there is only the end of the
  file.

  An external token is \<open>masked\<close> if it is valid in the row but the scanner never returns it there: a
  comment where a string text is asked for, and all but two tokens in the error state. A token of the
  main lexer is \<open>shadowed\<close> in the error state if the scanner takes every input that starts with its text.
\<close>

abbreviation (input) row_of :: "TSLexMode \<Rightarrow> bool list" where
  "row_of m \<equiv> ts_external_scanner_states ! external_lex_state m"

definition found :: "TSLexMode \<Rightarrow> TSSymbol \<Rightarrow> bool" where
  "found m t \<longleftrightarrow> (\<exists>w i. length w < 2 ^ 32 \<and> scanned (row_of m) (codes w) = Some i \<and>
     i < EXTERNAL_TOKEN_COUNT \<and> row_of m ! i \<and> ts_external_scanner_symbol_map ! i = t)"

definition masked :: "TSLexMode \<Rightarrow> TSSymbol \<Rightarrow> bool" where
  "masked m t \<longleftrightarrow>
     (external_lex_state m = 1 \<or>
      2 < external_lex_state m \<and> t \<in> {sym__block_comment, sym__documentation_block_comment}) \<and>
     (\<exists>i < EXTERNAL_TOKEN_COUNT. row_of m ! i \<and> ts_external_scanner_symbol_map ! i = t) \<and>
     (\<forall>inp i. scanned (row_of m) inp = Some i \<longrightarrow> ts_external_scanner_symbol_map ! i \<noteq> t)"

definition shadowed :: "TSLexMode \<Rightarrow> TSSymbol \<Rightarrow> bool" where
  "shadowed m t \<longleftrightarrow> external_lex_state m = 1 \<and>
     t \<in> {anon_sym_r_DQUOTE, anon_sym_r_SQUOTE, anon_sym_r_DQUOTE_DQUOTE_DQUOTE, anon_sym_r_SQUOTE_SQUOTE_SQUOTE} \<and>
     (\<exists>w. lexes (lex_state m) w t \<and> (\<forall>inp. scanned (row_of m) (codes w @ inp) \<noteq> None))"

definition expects :: "TSLexMode \<Rightarrow> TSSymbol \<Rightarrow> bool" where
  "expects m t \<longleftrightarrow> t < TOKEN_COUNT \<and>
     (if m = NO_LEX_MODE then t = ts_builtin_sym_end
      else (\<exists>w. length w < 2 ^ 32 \<and> scanned (row_of m) (codes w) = None \<and>
            (lexes (lex_state m) w t \<or> captured (lex_state m) w t)) \<or>
        found m t \<or> masked m t \<or> shadowed m t)"

text \<open>The same without the row, for the tokens that do not depend on it.\<close>

definition delivers :: "TSStateId \<Rightarrow> TSSymbol \<Rightarrow> bool" where
  "delivers s t \<longleftrightarrow> (\<forall>e. expects (LM s e) t)"

lemma expects_delivers [simp]: "delivers s t \<Longrightarrow> expects (LM s e) t"
  by (simp add: delivers_def)

lemma lexes_switch: "lexes s w t \<Longrightarrow> s \<noteq> 65535"
proof
  assume "lexes s w t" and s: "s = 65535"
  have "ts_lex_switch 65535 = None"
    using map_of_upt_keys [OF lex_keys_all, of 65535] by (simp add: ts_lex_switch_def)
  then show False using \<open>lexes s w t\<close> s
    by (cases "codes w") (auto simp: lexes_def jump_of_def accept_of_def note_token_def)
qed

lemma expects_terminal: "expects m t \<Longrightarrow> t < TOKEN_COUNT"
  by (simp add: expects_def)

lemma lexes_delivers:
  assumes "lexes s w t \<or> captured s w t" and "t < TOKEN_COUNT" and "quiet w"
  shows "delivers s t"
proof -
  have "s \<noteq> 65535" using assms(1) lexes_switch [of s w] by (auto simp: captured_def)
  with assms quiet_scanned [OF assms(3)] show ?thesis
    by (auto simp: delivers_def expects_def quiet_def)
qed

lemma lexed_delivers:
  "list_all (\<lambda>(s, w, t). lexes s w t) xs \<Longrightarrow> list_all (\<lambda>(s, w, t). t < TOKEN_COUNT \<and> quiet w) xs \<Longrightarrow>
     list_all (\<lambda>(s, w, t). delivers s t) xs"
  by (auto simp: list_all_iff dest!: bspec intro!: lexes_delivers)

lemma captured_delivers:
  "list_all (\<lambda>(s, w, t). captured s w t) xs \<Longrightarrow> list_all (\<lambda>(s, w, t). t < TOKEN_COUNT \<and> quiet w) xs \<Longrightarrow>
     list_all (\<lambda>(s, w, t). delivers s t) xs"
  by (auto simp: list_all_iff dest!: bspec intro!: lexes_delivers)

lemma raw_opener_expected:
  assumes "lexes s w t" and "raw_opener w"
    and "t \<in> {anon_sym_r_DQUOTE, anon_sym_r_SQUOTE, anon_sym_r_DQUOTE_DQUOTE_DQUOTE, anon_sym_r_SQUOTE_SQUOTE_SQUOTE}"
  shows "expects (LM s 2) t \<and> expects (LM s 1) t"
  using assms by (auto simp: expects_def shadowed_def raw_opener_def)

lemma raw_openers_expected: "list_all (\<lambda>(s, w, t). expects (LM s 2) t \<and> expects (LM s 1) t) raw_openers"
proof -
  have "list_all (\<lambda>(s, w, t). t \<in> {anon_sym_r_DQUOTE, anon_sym_r_SQUOTE,
      anon_sym_r_DQUOTE_DQUOTE_DQUOTE, anon_sym_r_SQUOTE_SQUOTE_SQUOTE}) raw_openers"
    by (simp add: raw_openers_def)
  with raw_openers_lexed raw_openers_raw show ?thesis
    by (auto simp: list_all_iff simp del: One_nat_def dest!: bspec
        intro: raw_opener_expected [THEN conjunct1] raw_opener_expected [THEN conjunct2])
qed

lemmas raw_openers_eqs [simp] = raw_openers_expected [unfolded raw_openers_def list_all_tens prod.case One_nat_def]

lemma token_bounds:
  "list_all (\<lambda>(s, w, t). t < TOKEN_COUNT \<and> quiet w) lexed_tokens_1"
  "list_all (\<lambda>(s, w, t). t < TOKEN_COUNT \<and> quiet w) lexed_tokens_2"
  "list_all (\<lambda>(s, w, t). t < TOKEN_COUNT \<and> quiet w) lexed_tokens_3"
  "list_all (\<lambda>(s, w, t). t < TOKEN_COUNT \<and> quiet w) lexed_tokens_4"
  "list_all (\<lambda>(s, w, t). t < TOKEN_COUNT \<and> quiet w) lexed_tokens_5"
  "list_all (\<lambda>(s, w, t). t < TOKEN_COUNT \<and> quiet w) lexed_tokens_6"
  "list_all (\<lambda>(s, w, t). t < TOKEN_COUNT \<and> quiet w) captured_words_1"
  "list_all (\<lambda>(s, w, t). t < TOKEN_COUNT \<and> quiet w) captured_words_2"
  by (simp_all add: quiet_eqs lexed_tokens_1_def lexed_tokens_2_def lexed_tokens_3_def lexed_tokens_4_def
    lexed_tokens_5_def lexed_tokens_6_def captured_words_1_def captured_words_2_def)

lemmas delivers_eqs [simp] =
  lexed_delivers [OF lexed_tokens_1_lexed token_bounds(1), unfolded lexed_tokens_1_def list_all_tens prod.case One_nat_def]
  lexed_delivers [OF lexed_tokens_2_lexed token_bounds(2), unfolded lexed_tokens_2_def list_all_tens prod.case One_nat_def]
  lexed_delivers [OF lexed_tokens_3_lexed token_bounds(3), unfolded lexed_tokens_3_def list_all_tens prod.case One_nat_def]
  lexed_delivers [OF lexed_tokens_4_lexed token_bounds(4), unfolded lexed_tokens_4_def list_all_tens prod.case One_nat_def]
  lexed_delivers [OF lexed_tokens_5_lexed token_bounds(5), unfolded lexed_tokens_5_def list_all_tens prod.case One_nat_def]
  lexed_delivers [OF lexed_tokens_6_lexed token_bounds(6), unfolded lexed_tokens_6_def list_all_tens prod.case One_nat_def]
  captured_delivers [OF captured_words_1_captured token_bounds(7), unfolded captured_words_1_def list_all_tens prod.case One_nat_def]
  captured_delivers [OF captured_words_2_captured token_bounds(8), unfolded captured_words_2_def list_all_tens prod.case One_nat_def]

text \<open>The external tokens: the ones the scanner finds, with their texts, and the masked ones.\<close>

lemma found_expects:
  assumes "scanned (ts_external_scanner_states ! e) (codes w) = Some i" and "i < EXTERNAL_TOKEN_COUNT"
    and "ts_external_scanner_states ! e ! i" and "length w < 2 ^ 32" and "s \<noteq> 65535"
  shows "expects (LM s e) (TOKEN_COUNT - EXTERNAL_TOKEN_COUNT + i)"
  using assms by (auto simp: expects_def found_def external_symbol_map_eq simp del: upt_rec_numeral
      intro!: exI [of _ w])

lemma masked_expects:
  assumes "wants_template (ts_external_scanner_states ! e)" and "i < EXTERNAL_TOKEN_COUNT"
    and "e = 1 \<or> 2 < e \<and> 5 \<le> i" and "ts_external_scanner_states ! e ! i"
    and "i \<noteq> template_symbol (ts_external_scanner_states ! e)" and "i \<noteq> TEMPLATE_CHARS_RAW_SLASH"
    and "s \<noteq> 65535"
  shows "expects (LM s e) (TOKEN_COUNT - EXTERNAL_TOKEN_COUNT + i)"
proof -
  have "ts_external_scanner_symbol_map ! j \<noteq> 156 + i"
    if "scanned (ts_external_scanner_states ! e) inp = Some j" for inp j
  proof -
    from scanned_template [OF assms(1) that] assms(5,6) have "j \<noteq> i" "j < EXTERNAL_TOKEN_COUNT"
      by (auto simp: template_symbol_def)
    then show ?thesis by (simp add: external_symbol_map_eq del: upt_rec_numeral)
  qed
  moreover have "e = 1 \<or> 2 < e \<and> (156 + i = sym__block_comment \<or> 156 + i = sym__documentation_block_comment)"
    using assms(2,3) by auto
  ultimately have "masked (LM s e) (156 + i)"
    using assms(2,4) by (auto simp: masked_def external_symbol_map_eq simp del: upt_rec_numeral)
  with assms(2,7) show ?thesis by (simp add: expects_def)
qed

lemma external_found [simp]:
  "s \<noteq> 65535 \<Longrightarrow> expects (LM s (Suc 0)) sym__template_chars_single"
  "s \<noteq> 65535 \<Longrightarrow> expects (LM s (Suc 0)) sym__template_chars_raw_slash"
  "s \<noteq> 65535 \<Longrightarrow> expects (LM s 2) sym__block_comment"
  "s \<noteq> 65535 \<Longrightarrow> expects (LM s 2) sym__documentation_block_comment"
  "s \<noteq> 65535 \<Longrightarrow> expects (LM s 3) sym__template_chars_single"
  "s \<noteq> 65535 \<Longrightarrow> expects (LM s 4) sym__template_chars_double"
  "s \<noteq> 65535 \<Longrightarrow> expects (LM s 5) sym__template_chars_double_single"
  "s \<noteq> 65535 \<Longrightarrow> expects (LM s 6) sym__template_chars_single_single"
  "s \<noteq> 65535 \<Longrightarrow> expects (LM s 7) sym__template_chars_single"
  "s \<noteq> 65535 \<Longrightarrow> expects (LM s 7) sym__template_chars_raw_slash"
  "s \<noteq> 65535 \<Longrightarrow> expects (LM s 8) sym__template_chars_double"
  "s \<noteq> 65535 \<Longrightarrow> expects (LM s 8) sym__template_chars_raw_slash"
  "s \<noteq> 65535 \<Longrightarrow> expects (LM s 9) sym__template_chars_double_single"
  "s \<noteq> 65535 \<Longrightarrow> expects (LM s 9) sym__template_chars_raw_slash"
  "s \<noteq> 65535 \<Longrightarrow> expects (LM s 10) sym__template_chars_single_single"
  "s \<noteq> 65535 \<Longrightarrow> expects (LM s 10) sym__template_chars_raw_slash"
  using found_expects [of 1 "''a$''" 1]
    found_expects [of 1 "[CHR 0x5C, CHR ''a'', CHR ''$'']" 4]
    found_expects [of 2 "''/* */''" 5]
    found_expects [of 2 "''/** */''" 6]
    found_expects [of 3 "''a$''" 1]
    found_expects [of 4 "''a$''" 0]
    found_expects [of 5 "''a$''" 2]
    found_expects [of 6 "''a$''" 3]
    found_expects [of 7 "''a$''" 1]
    found_expects [of 7 "[CHR 0x5C, CHR ''a'', CHR ''$'']" 4]
    found_expects [of 8 "''a$''" 0]
    found_expects [of 8 "[CHR 0x5C, CHR ''a'', CHR ''$'']" 4]
    found_expects [of 9 "''a$''" 2]
    found_expects [of 9 "[CHR 0x5C, CHR ''a'', CHR ''$'']" 4]
    found_expects [of 10 "''a$''" 3]
    found_expects [of 10 "[CHR 0x5C, CHR ''a'', CHR ''$'']" 4]
  by (simp_all add: scanned_def external_states_eq wants_template_def
      template_char_def template_stop_def template_symbol_def iswspace_def)

lemma external_masked [simp]:
  "s \<noteq> 65535 \<Longrightarrow> expects (LM s (Suc 0)) sym__template_chars_double"
  "s \<noteq> 65535 \<Longrightarrow> expects (LM s (Suc 0)) sym__template_chars_double_single"
  "s \<noteq> 65535 \<Longrightarrow> expects (LM s (Suc 0)) sym__template_chars_single_single"
  "s \<noteq> 65535 \<Longrightarrow> expects (LM s (Suc 0)) sym__block_comment"
  "s \<noteq> 65535 \<Longrightarrow> expects (LM s (Suc 0)) sym__documentation_block_comment"
  "s \<noteq> 65535 \<Longrightarrow> expects (LM s 3) sym__block_comment"
  "s \<noteq> 65535 \<Longrightarrow> expects (LM s 3) sym__documentation_block_comment"
  "s \<noteq> 65535 \<Longrightarrow> expects (LM s 4) sym__block_comment"
  "s \<noteq> 65535 \<Longrightarrow> expects (LM s 4) sym__documentation_block_comment"
  "s \<noteq> 65535 \<Longrightarrow> expects (LM s 5) sym__block_comment"
  "s \<noteq> 65535 \<Longrightarrow> expects (LM s 5) sym__documentation_block_comment"
  "s \<noteq> 65535 \<Longrightarrow> expects (LM s 6) sym__block_comment"
  "s \<noteq> 65535 \<Longrightarrow> expects (LM s 6) sym__documentation_block_comment"
  "s \<noteq> 65535 \<Longrightarrow> expects (LM s 7) sym__block_comment"
  "s \<noteq> 65535 \<Longrightarrow> expects (LM s 7) sym__documentation_block_comment"
  "s \<noteq> 65535 \<Longrightarrow> expects (LM s 8) sym__block_comment"
  "s \<noteq> 65535 \<Longrightarrow> expects (LM s 8) sym__documentation_block_comment"
  "s \<noteq> 65535 \<Longrightarrow> expects (LM s 9) sym__block_comment"
  "s \<noteq> 65535 \<Longrightarrow> expects (LM s 9) sym__documentation_block_comment"
  "s \<noteq> 65535 \<Longrightarrow> expects (LM s 10) sym__block_comment"
  "s \<noteq> 65535 \<Longrightarrow> expects (LM s 10) sym__documentation_block_comment"
  using masked_expects [of 1 0] masked_expects [of 1 2] masked_expects [of 1 3]
    masked_expects [of 1 5] masked_expects [of 1 6] masked_expects [of 3 5]
    masked_expects [of 3 6] masked_expects [of 4 5] masked_expects [of 4 6]
    masked_expects [of 5 5] masked_expects [of 5 6] masked_expects [of 6 5]
    masked_expects [of 6 6] masked_expects [of 7 5] masked_expects [of 7 6]
    masked_expects [of 8 5] masked_expects [of 8 6] masked_expects [of 9 5]
    masked_expects [of 9 6] masked_expects [of 10 5] masked_expects [of 10 6]
  by (simp_all add: external_states_eq wants_template_def template_symbol_def)

lemma expects_none [simp]: "expects NO_LEX_MODE 0"
  by (simp add: expects_def)

end
