(* ===== verification/Dart_Table.thy ===== *)
theory Dart_Table
  imports Dart_Actions Dart_Expect
begin

text \<open>
  The vocabulary of the parse tables \<^verbatim>\<open>ts_parse_table\<close> and \<^verbatim>\<open>ts_small_parse_table\<close> of \<^verbatim>\<open>parser.c\<close>, which the
  theories \<open>Dart_Rows_1\<close> to \<open>Dart_Rows_8\<close> and \<open>Dart_Small_1\<close> to \<open>Dart_Small_10\<close> write out,
  and the table \<^verbatim>\<open>ts_small_parse_table_map\<close>.
\<close>

subsection \<open>Macros\<close>

abbreviation (input) STATE :: "TSStateId \<Rightarrow> nat" where "STATE i \<equiv> i"
abbreviation (input) ACTIONS :: "nat \<Rightarrow> nat" where "ACTIONS i \<equiv> i"
abbreviation (input) SMALL_STATE :: "TSStateId \<Rightarrow> nat" where "SMALL_STATE i \<equiv> i - LARGE_STATE_COUNT"

text \<open>A row of the large table: the symbols its initialiser names with their values.\<close>

type_synonym table_row = "(TSSymbol \<times> nat) list"

subsection \<open>The groups of actions\<close>

lemma action_blocks:
  "set ts_parse_actions_1 \<subseteq> set ts_parse_action_groups"
  "set ts_parse_actions_2 \<subseteq> set ts_parse_action_groups"
  "set ts_parse_actions_3 \<subseteq> set ts_parse_action_groups"
  "set ts_parse_actions_4 \<subseteq> set ts_parse_action_groups"
  "set ts_parse_actions_5 \<subseteq> set ts_parse_action_groups"
  "set ts_parse_actions_6 \<subseteq> set ts_parse_action_groups"
  "set ts_parse_actions_7 \<subseteq> set ts_parse_action_groups"
  "set ts_parse_actions_8 \<subseteq> set ts_parse_action_groups"
  "set ts_parse_actions_9 \<subseteq> set ts_parse_action_groups"
  "set ts_parse_actions_10 \<subseteq> set ts_parse_action_groups"
  "set ts_parse_actions_11 \<subseteq> set ts_parse_action_groups"
  "set ts_parse_actions_12 \<subseteq> set ts_parse_action_groups"
  "set ts_parse_actions_13 \<subseteq> set ts_parse_action_groups"
  "set ts_parse_actions_14 \<subseteq> set ts_parse_action_groups"
  "set ts_parse_actions_15 \<subseteq> set ts_parse_action_groups"
  "set ts_parse_actions_16 \<subseteq> set ts_parse_action_groups"
  "set ts_parse_actions_17 \<subseteq> set ts_parse_action_groups"
  "set ts_parse_actions_18 \<subseteq> set ts_parse_action_groups"
  "set ts_parse_actions_19 \<subseteq> set ts_parse_action_groups"
  "set ts_parse_actions_20 \<subseteq> set ts_parse_action_groups"
  "set ts_parse_actions_21 \<subseteq> set ts_parse_action_groups"
  "set ts_parse_actions_22 \<subseteq> set ts_parse_action_groups"
  by (auto simp: ts_parse_action_groups_def)

subsection \<open>Kinds of symbols\<close>

definition is_terminal :: "TSSymbol \<Rightarrow> bool" where
  "is_terminal y \<longleftrightarrow> y < TOKEN_COUNT"

definition is_nonterminal :: "TSSymbol \<Rightarrow> bool" where
  "is_nonterminal y \<longleftrightarrow> TOKEN_COUNT \<le> y \<and> y < SYMBOL_COUNT"

lemma symbol_kinds:
  "list_all is_terminal [2..<102]"
  "list_all is_terminal [102..<163]"
  "list_all is_nonterminal [163..<263]"
  "list_all is_nonterminal [263..<363]"
  "list_all is_nonterminal [363..<463]"
  "list_all is_nonterminal [463..<524]"
  by (auto simp: list_all_iff is_terminal_def is_nonterminal_def simp del: upt_rec_numeral)

lemma first_terminals [simp]: "is_terminal 0" "is_terminal (Suc 0)"
  by (simp_all add: is_terminal_def)

lemmas symbol_kind_eqs [simp] =
  symbol_kinds(1) [simplified]
  symbol_kinds(2) [simplified]
  symbol_kinds(3) [simplified]
  symbol_kinds(4) [simplified]
  symbol_kinds(5) [simplified]
  symbol_kinds(6) [simplified]

subsection \<open>The small table\<close>

text \<open>
  The flat array \<^verbatim>\<open>ts_small_parse_table\<close> has a group of entries for each of the other states: the index
  it starts at, the number of its sections and the sections, each with a value, the number of its
  symbols and the symbols with this value.
\<close>

type_synonym small_section = "nat \<times> nat \<times> TSSymbol list"
type_synonym small_group = "nat \<times> nat \<times> small_section list"

text \<open>
  The map from the states to the indices of their groups: the index \<^verbatim>\<open>SMALL_STATE(s)\<close> and the value.
\<close>

definition ts_small_parse_table_map_1 :: "(nat \<times> nat) list" where
  "ts_small_parse_table_map_1 = [
     (0, 0), (1, 147), (2, 294), (3, 385), (4, 478), (5, 625), (6, 718), (7, 865), (8, 1004),
     (9, 1151), (10, 1298), (11, 1445), (12, 1592), (13, 1729), (14, 1876), (15, 2028),
     (16, 2124), (17, 2276), (18, 2356), (19, 2436), (20, 2548), (21, 2660), (22, 2770),
     (23, 2876), (24, 2984), (25, 3063), (26, 3142), (27, 3221), (28, 3312), (29, 3391),
     (30, 3470), (31, 3549), (32, 3628), (33, 3707), (34, 3786), (35, 3865), (36, 3944),
     (37, 4023), (38, 4104), (39, 4193), (40, 4272), (41, 4351), (42, 4430), (43, 4509),
     (44, 4588), (45, 4667), (46, 4746), (47, 4825), (48, 4904), (49, 4983), (50, 5062),
     (51, 5141), (52, 5220), (53, 5299), (54, 5380), (55, 5459), (56, 5538), (57, 5717),
     (58, 5796), (59, 5874), (60, 6018), (61, 6162), (62, 6298), (63, 6376), (64, 6520),
     (65, 6664), (66, 6808), (67, 6984), (68, 7074), (69, 7218), (70, 7296), (71, 7440),
     (72, 7518), (73, 7606), (74, 7684), (75, 7766), (76, 7910), (77, 7992), (78, 8070),
     (79, 8204), (80, 8294), (81, 8438), (82, 8516), (83, 8598), (84, 8771), (85, 8848),
     (86, 8925), (87, 9002), (88, 9079), (89, 9156), (90, 9233), (91, 9310), (92, 9387),
     (93, 9560), (94, 9637), (95, 9810), (96, 9981), (97, 10154), (98, 10231), (99, 10326),
     (100, 10499), (101, 10576), (102, 10673), (103, 10846), (104, 11017), (105, 11190),
     (106, 11363), (107, 11440), (108, 11613), (109, 11690), (110, 11863), (111, 11951),
     (112, 12037), (113, 12113), (114, 12188), (115, 12263), (116, 12358), (117, 12451),
     (118, 12526), (119, 12601), (120, 12676), (121, 12751), (122, 12826), (123, 12901),
     (124, 12976), (125, 13067), (126, 13142), (127, 13221), (128, 13300), (129, 13375),
     (130, 13454), (131, 13529), (132, 13604), (133, 13679), (134, 13754), (135, 13829),
     (136, 13920), (137, 14015), (138, 14090), (139, 14165), (140, 14240), (141, 14315),
     (142, 14390), (143, 14465), (144, 14539), (145, 14613), (146, 14687), (147, 14771),
     (148, 14845), (149, 14935)]"

definition ts_small_parse_table_map_2 :: "(nat \<times> nat) list" where
  "ts_small_parse_table_map_2 = [
     (150, 15041), (151, 15115), (152, 15207), (153, 15281), (154, 15355), (155, 15461),
     (156, 15535), (157, 15609), (158, 15683), (159, 15757), (160, 15831), (161, 15937),
     (162, 16027), (163, 16115), (164, 16189), (165, 16277), (166, 16383), (167, 16526),
     (168, 16599), (169, 16676), (170, 16775), (171, 16878), (172, 16951), (173, 17024),
     (174, 17185), (175, 17290), (176, 17393), (177, 17496), (178, 17569), (179, 17672),
     (180, 17749), (181, 17854), (182, 17931), (183, 18004), (184, 18119), (185, 18208),
     (186, 18310), (187, 18468), (188, 18554), (189, 18656), (190, 18791), (191, 18894),
     (192, 19049), (193, 19184), (194, 19339), (195, 19474), (196, 19609), (197, 19712),
     (198, 19815), (199, 19950), (200, 20093), (201, 20228), (202, 20363), (203, 20518),
     (204, 20645), (205, 20780), (206, 20883), (207, 21018), (208, 21121), (209, 21264),
     (210, 21367), (211, 21496), (212, 21596), (213, 21696), (214, 21796), (215, 21896),
     (216, 22048), (217, 22144), (218, 22244), (219, 22344), (220, 22479), (221, 22604),
     (222, 22739), (223, 22840), (224, 22941), (225, 23076), (226, 23177), (227, 23312),
     (228, 23439), (229, 23580), (230, 23715), (231, 23850), (232, 23985), (233, 24120),
     (234, 24255), (235, 24356), (236, 24424), (237, 24492), (238, 24560), (239, 24628),
     (240, 24696), (241, 24764), (242, 24832), (243, 24900), (244, 24968), (245, 25036),
     (246, 25104), (247, 25172), (248, 25270), (249, 25368), (250, 25436), (251, 25530),
     (252, 25598), (253, 25666), (254, 25734), (255, 25832), (256, 25930), (257, 25998),
     (258, 26143), (259, 26222), (260, 26353), (261, 26484), (262, 26607), (263, 26732),
     (264, 26865), (265, 26940), (266, 27043), (267, 27174), (268, 27307), (269, 27434),
     (270, 27565), (271, 27710), (272, 27841), (273, 27916), (274, 28049), (275, 28182),
     (276, 28313), (277, 28444), (278, 28575), (279, 28708), (280, 28833), (281, 28906),
     (282, 29037), (283, 29170), (284, 29249), (285, 29382), (286, 29505), (287, 29638),
     (288, 29741), (289, 29874), (290, 30016), (291, 30090), (292, 30226), (293, 30320),
     (294, 30396), (295, 30538), (296, 30612), (297, 30748), (298, 30820), (299, 30892)]"

definition ts_small_parse_table_map_3 :: "(nat \<times> nat) list" where
  "ts_small_parse_table_map_3 = [
     (300, 30966), (301, 31032), (302, 31106), (303, 31172), (304, 31246), (305, 31312),
     (306, 31378), (307, 31520), (308, 31594), (309, 31660), (310, 31726), (311, 31792),
     (312, 31866), (313, 31932), (314, 31998), (315, 32064), (316, 32130), (317, 32196),
     (318, 32262), (319, 32328), (320, 32394), (321, 32460), (322, 32526), (323, 32597),
     (324, 32666), (325, 32735), (326, 32806), (327, 32875), (328, 32944), (329, 33013),
     (330, 33116), (331, 33185), (332, 33324), (333, 33463), (334, 33532), (335, 33601),
     (336, 33670), (337, 33773), (338, 33912), (339, 33985), (340, 34054), (341, 34123),
     (342, 34192), (343, 34256), (344, 34392), (345, 34456), (346, 34522), (347, 34588),
     (348, 34654), (349, 34718), (350, 34794), (351, 34858), (352, 34922), (353, 34992),
     (354, 35056), (355, 35120), (356, 35186), (357, 35250), (358, 35326), (359, 35392),
     (360, 35456), (361, 35520), (362, 35584), (363, 35648), (364, 35714), (365, 35778),
     (366, 35844), (367, 35910), (368, 35974), (369, 36042), (370, 36106), (371, 36170),
     (372, 36234), (373, 36298), (374, 36370), (375, 36434), (376, 36502), (377, 36566),
     (378, 36632), (379, 36696), (380, 36762), (381, 36836), (382, 36900), (383, 36964),
     (384, 37028), (385, 37100), (386, 37164), (387, 37232), (388, 37296), (389, 37360),
     (390, 37426), (391, 37492), (392, 37558), (393, 37624), (394, 37690), (395, 37756),
     (396, 37820), (397, 37956), (398, 38020), (399, 38084), (400, 38148), (401, 38212),
     (402, 38286), (403, 38350), (404, 38414), (405, 38478), (406, 38544), (407, 38607),
     (408, 38670), (409, 38743), (410, 38806), (411, 38873), (412, 38936), (413, 38999),
     (414, 39062), (415, 39125), (416, 39188), (417, 39321), (418, 39384), (419, 39447),
     (420, 39510), (421, 39573), (422, 39636), (423, 39699), (424, 39762), (425, 39825),
     (426, 39958), (427, 40025), (428, 40088), (429, 40155), (430, 40218), (431, 40281),
     (432, 40344), (433, 40407), (434, 40470), (435, 40541), (436, 40612), (437, 40681),
     (438, 40814), (439, 40889), (440, 40960), (441, 41023), (442, 41086), (443, 41157),
     (444, 41220), (445, 41283), (446, 41346), (447, 41409), (448, 41472), (449, 41535)]"

definition ts_small_parse_table_map_4 :: "(nat \<times> nat) list" where
  "ts_small_parse_table_map_4 = [
     (450, 41598), (451, 41661), (452, 41724), (453, 41787), (454, 41850), (455, 41913),
     (456, 41976), (457, 42039), (458, 42102), (459, 42165), (460, 42228), (461, 42291),
     (462, 42354), (463, 42417), (464, 42480), (465, 42543), (466, 42606), (467, 42669),
     (468, 42740), (469, 42803), (470, 42866), (471, 42929), (472, 43008), (473, 43071),
     (474, 43134), (475, 43197), (476, 43260), (477, 43323), (478, 43386), (479, 43457),
     (480, 43520), (481, 43583), (482, 43646), (483, 43709), (484, 43772), (485, 43843),
     (486, 43906), (487, 43969), (488, 44032), (489, 44095), (490, 44170), (491, 44233),
     (492, 44296), (493, 44359), (494, 44428), (495, 44491), (496, 44554), (497, 44617),
     (498, 44680), (499, 44743), (500, 44806), (501, 44869), (502, 44932), (503, 44995),
     (504, 45070), (505, 45133), (506, 45196), (507, 45259), (508, 45322), (509, 45385),
     (510, 45448), (511, 45518), (512, 45584), (513, 45650), (514, 45718), (515, 45784),
     (516, 45852), (517, 45918), (518, 45984), (519, 46052), (520, 46118), (521, 46184),
     (522, 46252), (523, 46318), (524, 46384), (525, 46452), (526, 46518), (527, 46586),
     (528, 46652), (529, 46718), (530, 46779), (531, 46840), (532, 46903), (533, 46964),
     (534, 47027), (535, 47090), (536, 47151), (537, 47214), (538, 47275), (539, 47336),
     (540, 47399), (541, 47460), (542, 47523), (543, 47584), (544, 47647), (545, 47708),
     (546, 47773), (547, 47834), (548, 47895), (549, 47956), (550, 48019), (551, 48090),
     (552, 48153), (553, 48216), (554, 48279), (555, 48340), (556, 48401), (557, 48484),
     (558, 48545), (559, 48606), (560, 48667), (561, 48730), (562, 48791), (563, 48856),
     (564, 48917), (565, 48978), (566, 49105), (567, 49178), (568, 49239), (569, 49302),
     (570, 49365), (571, 49492), (572, 49553), (573, 49614), (574, 49675), (575, 49736),
     (576, 49821), (577, 49882), (578, 49943), (579, 50006), (580, 50067), (581, 50152),
     (582, 50213), (583, 50274), (584, 50401), (585, 50466), (586, 50527), (587, 50588),
     (588, 50651), (589, 50712), (590, 50773), (591, 50836), (592, 50896), (593, 50964),
     (594, 51024), (595, 51084), (596, 51144), (597, 51204), (598, 51264), (599, 51324)]"

definition ts_small_parse_table_map_5 :: "(nat \<times> nat) list" where
  "ts_small_parse_table_map_5 = [
     (600, 51384), (601, 51444), (602, 51504), (603, 51564), (604, 51624), (605, 51684),
     (606, 51748), (607, 51812), (608, 51878), (609, 51938), (610, 51998), (611, 52058),
     (612, 52118), (613, 52178), (614, 52244), (615, 52304), (616, 52364), (617, 52424),
     (618, 52484), (619, 52544), (620, 52604), (621, 52664), (622, 52724), (623, 52788),
     (624, 52848), (625, 52908), (626, 52968), (627, 53028), (628, 53098), (629, 53158),
     (630, 53218), (631, 53278), (632, 53338), (633, 53398), (634, 53458), (635, 53518),
     (636, 53578), (637, 53638), (638, 53698), (639, 53758), (640, 53818), (641, 53878),
     (642, 53938), (643, 53998), (644, 54058), (645, 54118), (646, 54178), (647, 54244),
     (648, 54304), (649, 54364), (650, 54424), (651, 54484), (652, 54544), (653, 54604),
     (654, 54672), (655, 54732), (656, 54792), (657, 54852), (658, 54912), (659, 54972),
     (660, 55032), (661, 55092), (662, 55152), (663, 55212), (664, 55272), (665, 55332),
     (666, 55392), (667, 55452), (668, 55512), (669, 55572), (670, 55632), (671, 55692),
     (672, 55752), (673, 55812), (674, 55872), (675, 55932), (676, 55992), (677, 56052),
     (678, 56112), (679, 56172), (680, 56232), (681, 56292), (682, 56352), (683, 56412),
     (684, 56482), (685, 56542), (686, 56602), (687, 56662), (688, 56722), (689, 56782),
     (690, 56842), (691, 56902), (692, 56962), (693, 57022), (694, 57082), (695, 57142),
     (696, 57202), (697, 57262), (698, 57322), (699, 57382), (700, 57442), (701, 57502),
     (702, 57562), (703, 57621), (704, 57680), (705, 57765), (706, 57850), (707, 57915),
     (708, 57978), (709, 58041), (710, 58108), (711, 58191), (712, 58252), (713, 58321),
     (714, 58392), (715, 58453), (716, 58514), (717, 58573), (718, 58632), (719, 58697),
     (720, 58762), (721, 58827), (722, 58910), (723, 58969), (724, 59028), (725, 59086),
     (726, 59144), (727, 59202), (728, 59260), (729, 59318), (730, 59376), (731, 59434),
     (732, 59492), (733, 59550), (734, 59608), (735, 59666), (736, 59724), (737, 59782),
     (738, 59840), (739, 59898), (740, 59956), (741, 60014), (742, 60080), (743, 60138),
     (744, 60196), (745, 60258), (746, 60316), (747, 60374), (748, 60436), (749, 60494)]"

definition ts_small_parse_table_map_6 :: "(nat \<times> nat) list" where
  "ts_small_parse_table_map_6 = [
     (750, 60552), (751, 60610), (752, 60672), (753, 60730), (754, 60788), (755, 60846),
     (756, 60908), (757, 60966), (758, 61034), (759, 61092), (760, 61150), (761, 61210),
     (762, 61268), (763, 61326), (764, 61384), (765, 61448), (766, 61512), (767, 61580),
     (768, 61638), (769, 61696), (770, 61754), (771, 61812), (772, 61874), (773, 61936),
     (774, 61994), (775, 62052), (776, 62116), (777, 62174), (778, 62232), (779, 62290),
     (780, 62348), (781, 62406), (782, 62464), (783, 62522), (784, 62580), (785, 62638),
     (786, 62696), (787, 62754), (788, 62812), (789, 62870), (790, 62932), (791, 63002),
     (792, 63060), (793, 63118), (794, 63176), (795, 63234), (796, 63292), (797, 63350),
     (798, 63408), (799, 63466), (800, 63536), (801, 63594), (802, 63652), (803, 63710),
     (804, 63772), (805, 63830), (806, 63892), (807, 63954), (808, 64011), (809, 64068),
     (810, 64125), (811, 64186), (812, 64251), (813, 64316), (814, 64373), (815, 64436),
     (816, 64493), (817, 64558), (818, 64623), (819, 64686), (820, 64743), (821, 64804),
     (822, 64861), (823, 64918), (824, 64975), (825, 65032), (826, 65097), (827, 65162),
     (828, 65226), (829, 65332), (830, 65398), (831, 65504), (832, 65568), (833, 65624),
     (834, 65690), (835, 65796), (836, 65862), (837, 65926), (838, 65994), (839, 66060),
     (840, 66126), (841, 66188), (842, 66294), (843, 66362), (844, 66468), (845, 66574),
     (846, 66680), (847, 66786), (848, 66846), (849, 66952), (850, 67058), (851, 67164),
     (852, 67270), (853, 67376), (854, 67482), (855, 67588), (856, 67647), (857, 67702),
     (858, 67765), (859, 67828), (860, 67891), (861, 67954), (862, 68025), (863, 68080),
     (864, 68139), (865, 68200), (866, 68259), (867, 68314), (868, 68369), (869, 68430),
     (870, 68493), (871, 68548), (872, 68619), (873, 68682), (874, 68737), (875, 68796),
     (876, 68855), (877, 68910), (878, 68975), (879, 69030), (880, 69085), (881, 69140),
     (882, 69199), (883, 69254), (884, 69313), (885, 69368), (886, 69423), (887, 69478),
     (888, 69533), (889, 69588), (890, 69647), (891, 69706), (892, 69765), (893, 69824),
     (894, 69883), (895, 69994), (896, 70049), (897, 70104), (898, 70159), (899, 70218)]"

definition ts_small_parse_table_map_7 :: "(nat \<times> nat) list" where
  "ts_small_parse_table_map_7 = [
     (900, 70277), (901, 70336), (902, 70390), (903, 70444), (904, 70498), (905, 70554),
     (906, 70608), (907, 70662), (908, 70716), (909, 70770), (910, 70824), (911, 70878),
     (912, 70934), (913, 70988), (914, 71042), (915, 71098), (916, 71154), (917, 71210),
     (918, 71264), (919, 71318), (920, 71374), (921, 71428), (922, 71482), (923, 71536),
     (924, 71592), (925, 71652), (926, 71706), (927, 71772), (928, 71828), (929, 71894),
     (930, 71950), (931, 72004), (932, 72058), (933, 72124), (934, 72178), (935, 72232),
     (936, 72286), (937, 72340), (938, 72402), (939, 72456), (940, 72510), (941, 72564),
     (942, 72618), (943, 72672), (944, 72726), (945, 72784), (946, 72838), (947, 72892),
     (948, 72946), (949, 73000), (950, 73062), (951, 73116), (952, 73172), (953, 73226),
     (954, 73280), (955, 73338), (956, 73392), (957, 73446), (958, 73500), (959, 73553),
     (960, 73606), (961, 73665), (962, 73726), (963, 73783), (964, 73840), (965, 73893),
     (966, 73950), (967, 74011), (968, 74068), (969, 74127), (970, 74192), (971, 74249),
     (972, 74306), (973, 74363), (974, 74424), (975, 74485), (976, 74538), (977, 74607),
     (978, 74668), (979, 74729), (980, 74786), (981, 74851), (982, 74922), (983, 74981),
     (984, 75034), (985, 75103), (986, 75156), (987, 75209), (988, 75262), (989, 75315),
     (990, 75368), (991, 75421), (992, 75474), (993, 75527), (994, 75580), (995, 75633),
     (996, 75686), (997, 75739), (998, 75796), (999, 75853), (1000, 75906), (1001, 75963),
     (1002, 76016), (1003, 76069), (1004, 76122), (1005, 76187), (1006, 76240), (1007, 76293),
     (1008, 76346), (1009, 76399), (1010, 76451), (1011, 76503), (1012, 76555), (1013, 76607),
     (1014, 76659), (1015, 76711), (1016, 76791), (1017, 76843), (1018, 76903), (1019, 76955),
     (1020, 77009), (1021, 77063), (1022, 77115), (1023, 77169), (1024, 77227), (1025, 77281),
     (1026, 77333), (1027, 77387), (1028, 77439), (1029, 77491), (1030, 77543), (1031, 77599),
     (1032, 77653), (1033, 77707), (1034, 77761), (1035, 77813), (1036, 77867), (1037, 77927),
     (1038, 77979), (1039, 78031), (1040, 78085), (1041, 78137), (1042, 78195), (1043, 78251),
     (1044, 78331), (1045, 78433), (1046, 78485), (1047, 78537), (1048, 78589), (1049, 78669)]"

definition ts_small_parse_table_map_8 :: "(nat \<times> nat) list" where
  "ts_small_parse_table_map_8 = [
     (1050, 78721), (1051, 78773), (1052, 78825), (1053, 78885), (1054, 78937), (1055, 78989),
     (1056, 79041), (1057, 79093), (1058, 79145), (1059, 79225), (1060, 79285), (1061, 79340),
     (1062, 79391), (1063, 79442), (1064, 79501), (1065, 79552), (1066, 79611), (1067, 79662),
     (1068, 79717), (1069, 79772), (1070, 79823), (1071, 79874), (1072, 79931), (1073, 79982),
     (1074, 80033), (1075, 80088), (1076, 80139), (1077, 80194), (1078, 80245), (1079, 80296),
     (1080, 80347), (1081, 80402), (1082, 80457), (1083, 80508), (1084, 80559), (1085, 80610),
     (1086, 80661), (1087, 80716), (1088, 80767), (1089, 80822), (1090, 80873), (1091, 80924),
     (1092, 80975), (1093, 81034), (1094, 81093), (1095, 81144), (1096, 81199), (1097, 81256),
     (1098, 81307), (1099, 81362), (1100, 81425), (1101, 81476), (1102, 81527), (1103, 81578),
     (1104, 81641), (1105, 81692), (1106, 81747), (1107, 81802), (1108, 81853), (1109, 81904),
     (1110, 81959), (1111, 82010), (1112, 82069), (1113, 82124), (1114, 82183), (1115, 82238),
     (1116, 82289), (1117, 82340), (1118, 82391), (1119, 82442), (1120, 82493), (1121, 82547),
     (1122, 82597), (1123, 82651), (1124, 82703), (1125, 82753), (1126, 82803), (1127, 82853),
     (1128, 82903), (1129, 82953), (1130, 83003), (1131, 83053), (1132, 83103), (1133, 83155),
     (1134, 83207), (1135, 83257), (1136, 83307), (1137, 83359), (1138, 83411), (1139, 83461),
     (1140, 83511), (1141, 83561), (1142, 83611), (1143, 83661), (1144, 83711), (1145, 83761),
     (1146, 83815), (1147, 83865), (1148, 83915), (1149, 83965), (1150, 84015), (1151, 84065),
     (1152, 84115), (1153, 84165), (1154, 84215), (1155, 84269), (1156, 84319), (1157, 84369),
     (1158, 84419), (1159, 84469), (1160, 84521), (1161, 84573), (1162, 84625), (1163, 84677),
     (1164, 84729), (1165, 84781), (1166, 84833), (1167, 84885), (1168, 84937), (1169, 84989),
     (1170, 85041), (1171, 85095), (1172, 85147), (1173, 85199), (1174, 85253), (1175, 85343),
     (1176, 85392), (1177, 85441), (1178, 85490), (1179, 85539), (1180, 85632), (1181, 85681),
     (1182, 85730), (1183, 85779), (1184, 85828), (1185, 85877), (1186, 85926), (1187, 85975),
     (1188, 86024), (1189, 86073), (1190, 86122), (1191, 86171), (1192, 86220), (1193, 86313),
     (1194, 86362), (1195, 86455), (1196, 86548), (1197, 86641), (1198, 86734), (1199, 86783)]"

definition ts_small_parse_table_map_9 :: "(nat \<times> nat) list" where
  "ts_small_parse_table_map_9 = [
     (1200, 86876), (1201, 86925), (1202, 87018), (1203, 87067), (1204, 87116), (1205, 87209),
     (1206, 87302), (1207, 87351), (1208, 87444), (1209, 87493), (1210, 87542), (1211, 87591),
     (1212, 87684), (1213, 87733), (1214, 87826), (1215, 87875), (1216, 87924), (1217, 87973),
     (1218, 88022), (1219, 88115), (1220, 88164), (1221, 88257), (1222, 88350), (1223, 88443),
     (1224, 88536), (1225, 88584), (1226, 88650), (1227, 88718), (1228, 88766), (1229, 88858),
     (1230, 88906), (1231, 88954), (1232, 89002), (1233, 89072), (1234, 89153), (1235, 89200),
     (1236, 89247), (1237, 89294), (1238, 89341), (1239, 89388), (1240, 89435), (1241, 89482),
     (1242, 89529), (1243, 89576), (1244, 89623), (1245, 89670), (1246, 89717), (1247, 89764),
     (1248, 89811), (1249, 89858), (1250, 89905), (1251, 89952), (1252, 89999), (1253, 90046),
     (1254, 90093), (1255, 90140), (1256, 90187), (1257, 90234), (1258, 90281), (1259, 90328),
     (1260, 90375), (1261, 90422), (1262, 90469), (1263, 90516), (1264, 90563), (1265, 90610),
     (1266, 90691), (1267, 90738), (1268, 90785), (1269, 90832), (1270, 90879), (1271, 90960),
     (1272, 91007), (1273, 91054), (1274, 91101), (1275, 91148), (1276, 91195), (1277, 91242),
     (1278, 91323), (1279, 91370), (1280, 91417), (1281, 91464), (1282, 91511), (1283, 91558),
     (1284, 91605), (1285, 91652), (1286, 91699), (1287, 91746), (1288, 91793), (1289, 91840),
     (1290, 91887), (1291, 91934), (1292, 91981), (1293, 92028), (1294, 92075), (1295, 92122),
     (1296, 92169), (1297, 92216), (1298, 92263), (1299, 92310), (1300, 92357), (1301, 92443),
     (1302, 92529), (1303, 92583), (1304, 92663), (1305, 92749), (1306, 92835), (1307, 92921),
     (1308, 93007), (1309, 93093), (1310, 93176), (1311, 93259), (1312, 93308), (1313, 93389),
     (1314, 93470), (1315, 93537), (1316, 93604), (1317, 93687), (1318, 93731), (1319, 93775),
     (1320, 93855), (1321, 93935), (1322, 94015), (1323, 94095), (1324, 94161), (1325, 94237),
     (1326, 94317), (1327, 94397), (1328, 94477), (1329, 94521), (1330, 94601), (1331, 94681),
     (1332, 94725), (1333, 94769), (1334, 94813), (1335, 94857), (1336, 94901), (1337, 94981),
     (1338, 95025), (1339, 95069), (1340, 95149), (1341, 95229), (1342, 95309), (1343, 95389),
     (1344, 95469), (1345, 95549), (1346, 95629), (1347, 95695), (1348, 95775), (1349, 95855)]"

definition ts_small_parse_table_map_10 :: "(nat \<times> nat) list" where
  "ts_small_parse_table_map_10 = [
     (1350, 95935), (1351, 96015), (1352, 96095), (1353, 96175), (1354, 96255), (1355, 96303),
     (1356, 96383), (1357, 96427), (1358, 96507), (1359, 96587), (1360, 96631), (1361, 96675),
     (1362, 96755), (1363, 96835), (1364, 96915), (1365, 96995), (1366, 97075), (1367, 97119),
     (1368, 97199), (1369, 97279), (1370, 97359), (1371, 97439), (1372, 97519), (1373, 97599),
     (1374, 97679), (1375, 97723), (1376, 97789), (1377, 97869), (1378, 97949), (1379, 98029),
     (1380, 98109), (1381, 98189), (1382, 98269), (1383, 98349), (1384, 98429), (1385, 98509),
     (1386, 98553), (1387, 98629), (1388, 98709), (1389, 98789), (1390, 98833), (1391, 98910),
     (1392, 98973), (1393, 99050), (1394, 99127), (1395, 99204), (1396, 99281), (1397, 99358),
     (1398, 99435), (1399, 99512), (1400, 99575), (1401, 99650), (1402, 99727), (1403, 99770),
     (1404, 99847), (1405, 99924), (1406, 100001), (1407, 100078), (1408, 100155),
     (1409, 100232), (1410, 100309), (1411, 100370), (1412, 100413), (1413, 100490),
     (1414, 100567), (1415, 100630), (1416, 100693), (1417, 100770), (1418, 100813),
     (1419, 100890), (1420, 100967), (1421, 101041), (1422, 101115), (1423, 101189),
     (1424, 101263), (1425, 101333), (1426, 101375), (1427, 101445), (1428, 101497),
     (1429, 101557), (1430, 101631), (1431, 101705), (1432, 101775), (1433, 101845),
     (1434, 101919), (1435, 101993), (1436, 102063), (1437, 102132), (1438, 102177),
     (1439, 102222), (1440, 102281), (1441, 102350), (1442, 102421), (1443, 102466),
     (1444, 102533), (1445, 102578), (1446, 102623), (1447, 102668), (1448, 102735),
     (1449, 102802), (1450, 102847), (1451, 102914), (1452, 102977), (1453, 103046),
     (1454, 103087), (1455, 103132), (1456, 103177), (1457, 103246), (1458, 103291),
     (1459, 103336), (1460, 103377), (1461, 103418), (1462, 103463), (1463, 103508),
     (1464, 103577), (1465, 103644), (1466, 103685), (1467, 103730), (1468, 103798),
     (1469, 103838), (1470, 103878), (1471, 103918), (1472, 103958), (1473, 103998),
     (1474, 104038), (1475, 104078), (1476, 104146), (1477, 104186), (1478, 104251),
     (1479, 104316), (1480, 104355), (1481, 104394), (1482, 104433), (1483, 104496),
     (1484, 104535), (1485, 104574), (1486, 104613), (1487, 104652), (1488, 104717),
     (1489, 104756), (1490, 104821), (1491, 104884), (1492, 104929), (1493, 104994),
     (1494, 105059), (1495, 105124), (1496, 105189), (1497, 105226), (1498, 105265),
     (1499, 105328)]"

definition ts_small_parse_table_map_11 :: "(nat \<times> nat) list" where
  "ts_small_parse_table_map_11 = [
     (1500, 105391), (1501, 105430), (1502, 105493), (1503, 105532), (1504, 105571),
     (1505, 105610), (1506, 105649), (1507, 105706), (1508, 105745), (1509, 105784),
     (1510, 105823), (1511, 105873), (1512, 105935), (1513, 105997), (1514, 106059),
     (1515, 106097), (1516, 106135), (1517, 106197), (1518, 106235), (1519, 106273),
     (1520, 106335), (1521, 106373), (1522, 106411), (1523, 106449), (1524, 106487),
     (1525, 106527), (1526, 106589), (1527, 106627), (1528, 106689), (1529, 106727),
     (1530, 106789), (1531, 106827), (1532, 106865), (1533, 106903), (1534, 106965),
     (1535, 107003), (1536, 107041), (1537, 107103), (1538, 107141), (1539, 107191),
     (1540, 107253), (1541, 107291), (1542, 107353), (1543, 107415), (1544, 107457),
     (1545, 107511), (1546, 107561), (1547, 107623), (1548, 107673), (1549, 107735),
     (1550, 107797), (1551, 107859), (1552, 107897), (1553, 107935), (1554, 107973),
     (1555, 108035), (1556, 108073), (1557, 108111), (1558, 108173), (1559, 108211),
     (1560, 108273), (1561, 108335), (1562, 108373), (1563, 108411), (1564, 108470),
     (1565, 108529), (1566, 108588), (1567, 108641), (1568, 108700), (1569, 108759),
     (1570, 108812), (1571, 108871), (1572, 108930), (1573, 108989), (1574, 109028),
     (1575, 109087), (1576, 109146), (1577, 109205), (1578, 109264), (1579, 109323),
     (1580, 109382), (1581, 109441), (1582, 109500), (1583, 109559), (1584, 109618),
     (1585, 109653), (1586, 109712), (1587, 109771), (1588, 109830), (1589, 109889),
     (1590, 109948), (1591, 110007), (1592, 110066), (1593, 110125), (1594, 110184),
     (1595, 110243), (1596, 110302), (1597, 110361), (1598, 110420), (1599, 110479),
     (1600, 110538), (1601, 110597), (1602, 110638), (1603, 110697), (1604, 110756),
     (1605, 110815), (1606, 110854), (1607, 110913), (1608, 110952), (1609, 110986),
     (1610, 111042), (1611, 111076), (1612, 111110), (1613, 111144), (1614, 111200),
     (1615, 111234), (1616, 111268), (1617, 111302), (1618, 111356), (1619, 111402),
     (1620, 111438), (1621, 111472), (1622, 111506), (1623, 111552), (1624, 111596),
     (1625, 111650), (1626, 111684), (1627, 111718), (1628, 111752), (1629, 111786),
     (1630, 111820), (1631, 111854), (1632, 111888), (1633, 111936), (1634, 111970),
     (1635, 112004), (1636, 112044), (1637, 112078), (1638, 112124), (1639, 112170),
     (1640, 112204), (1641, 112238), (1642, 112279), (1643, 112318), (1644, 112359),
     (1645, 112400), (1646, 112453), (1647, 112492), (1648, 112539), (1649, 112578)]"

definition ts_small_parse_table_map_12 :: "(nat \<times> nat) list" where
  "ts_small_parse_table_map_12 = [
     (1650, 112615), (1651, 112662), (1652, 112699), (1653, 112752), (1654, 112791),
     (1655, 112841), (1656, 112875), (1657, 112919), (1658, 112961), (1659, 112999),
     (1660, 113043), (1661, 113087), (1662, 113123), (1663, 113169), (1664, 113213),
     (1665, 113247), (1666, 113281), (1667, 113325), (1668, 113367), (1669, 113411),
     (1670, 113449), (1671, 113495), (1672, 113539), (1673, 113583), (1674, 113621),
     (1675, 113671), (1676, 113705), (1677, 113749), (1678, 113799), (1679, 113843),
     (1680, 113887), (1681, 113929), (1682, 113969), (1683, 114011), (1684, 114055),
     (1685, 114099), (1686, 114143), (1687, 114187), (1688, 114231), (1689, 114275),
     (1690, 114319), (1691, 114363), (1692, 114407), (1693, 114438), (1694, 114479),
     (1695, 114524), (1696, 114567), (1697, 114600), (1698, 114641), (1699, 114682),
     (1700, 114727), (1701, 114772), (1702, 114815), (1703, 114856), (1704, 114887),
     (1705, 114928), (1706, 114959), (1707, 115002), (1708, 115041), (1709, 115080),
     (1710, 115119), (1711, 115150), (1712, 115193), (1713, 115232), (1714, 115275),
     (1715, 115316), (1716, 115357), (1717, 115398), (1718, 115439), (1719, 115480),
     (1720, 115521), (1721, 115562), (1722, 115603), (1723, 115644), (1724, 115675),
     (1725, 115716), (1726, 115757), (1727, 115798), (1728, 115843), (1729, 115884),
     (1730, 115925), (1731, 115972), (1732, 116013), (1733, 116054), (1734, 116095),
     (1735, 116140), (1736, 116181), (1737, 116212), (1738, 116243), (1739, 116284),
     (1740, 116325), (1741, 116372), (1742, 116419), (1743, 116460), (1744, 116501),
     (1745, 116542), (1746, 116583), (1747, 116624), (1748, 116665), (1749, 116706),
     (1750, 116747), (1751, 116788), (1752, 116829), (1753, 116870), (1754, 116911),
     (1755, 116952), (1756, 116993), (1757, 117034), (1758, 117075), (1759, 117120),
     (1760, 117161), (1761, 117202), (1762, 117243), (1763, 117284), (1764, 117331),
     (1765, 117364), (1766, 117405), (1767, 117450), (1768, 117491), (1769, 117532),
     (1770, 117570), (1771, 117606), (1772, 117642), (1773, 117686), (1774, 117730),
     (1775, 117762), (1776, 117806), (1777, 117838), (1778, 117870), (1779, 117914),
     (1780, 117950), (1781, 117982), (1782, 118016), (1783, 118052), (1784, 118096),
     (1785, 118126), (1786, 118168), (1787, 118204), (1788, 118240), (1789, 118272),
     (1790, 118316), (1791, 118358), (1792, 118394), (1793, 118438), (1794, 118482),
     (1795, 118516), (1796, 118552), (1797, 118590), (1798, 118624), (1799, 118654)]"

definition ts_small_parse_table_map_13 :: "(nat \<times> nat) list" where
  "ts_small_parse_table_map_13 = [
     (1800, 118688), (1801, 118726), (1802, 118764), (1803, 118800), (1804, 118844),
     (1805, 118882), (1806, 118924), (1807, 118962), (1808, 119000), (1809, 119036),
     (1810, 119072), (1811, 119110), (1812, 119146), (1813, 119184), (1814, 119218),
     (1815, 119248), (1816, 119292), (1817, 119326), (1818, 119362), (1819, 119406),
     (1820, 119444), (1821, 119482), (1822, 119518), (1823, 119556), (1824, 119594),
     (1825, 119632), (1826, 119670), (1827, 119712), (1828, 119744), (1829, 119782),
     (1830, 119816), (1831, 119854), (1832, 119890), (1833, 119928), (1834, 119972),
     (1835, 120010), (1836, 120046), (1837, 120084), (1838, 120120), (1839, 120151),
     (1840, 120182), (1841, 120211), (1842, 120242), (1843, 120277), (1844, 120308),
     (1845, 120339), (1846, 120378), (1847, 120409), (1848, 120440), (1849, 120479),
     (1850, 120520), (1851, 120561), (1852, 120592), (1853, 120623), (1854, 120654),
     (1855, 120685), (1856, 120716), (1857, 120747), (1858, 120778), (1859, 120811),
     (1860, 120842), (1861, 120873), (1862, 120904), (1863, 120935), (1864, 120976),
     (1865, 121015), (1866, 121046), (1867, 121077), (1868, 121110), (1869, 121141),
     (1870, 121172), (1871, 121203), (1872, 121234), (1873, 121265), (1874, 121296),
     (1875, 121335), (1876, 121366), (1877, 121405), (1878, 121436), (1879, 121477),
     (1880, 121506), (1881, 121537), (1882, 121568), (1883, 121599), (1884, 121640),
     (1885, 121681), (1886, 121712), (1887, 121743), (1888, 121774), (1889, 121805),
     (1890, 121836), (1891, 121867), (1892, 121898), (1893, 121929), (1894, 121960),
     (1895, 121991), (1896, 122022), (1897, 122053), (1898, 122084), (1899, 122115),
     (1900, 122146), (1901, 122177), (1902, 122218), (1903, 122249), (1904, 122280),
     (1905, 122311), (1906, 122342), (1907, 122383), (1908, 122414), (1909, 122445),
     (1910, 122484), (1911, 122515), (1912, 122546), (1913, 122579), (1914, 122614),
     (1915, 122645), (1916, 122676), (1917, 122717), (1918, 122758), (1919, 122789),
     (1920, 122820), (1921, 122851), (1922, 122882), (1923, 122913), (1924, 122952),
     (1925, 122987), (1926, 123028), (1927, 123065), (1928, 123104), (1929, 123143),
     (1930, 123174), (1931, 123211), (1932, 123244), (1933, 123283), (1934, 123314),
     (1935, 123345), (1936, 123376), (1937, 123407), (1938, 123444), (1939, 123475),
     (1940, 123516), (1941, 123549), (1942, 123580), (1943, 123621), (1944, 123662),
     (1945, 123693), (1946, 123721), (1947, 123759), (1948, 123789), (1949, 123827)]"

definition ts_small_parse_table_map_14 :: "(nat \<times> nat) list" where
  "ts_small_parse_table_map_14 = [
     (1950, 123863), (1951, 123899), (1952, 123927), (1953, 123957), (1954, 123985),
     (1955, 124013), (1956, 124043), (1957, 124081), (1958, 124113), (1959, 124151),
     (1960, 124181), (1961, 124209), (1962, 124243), (1963, 124279), (1964, 124307),
     (1965, 124337), (1966, 124367), (1967, 124397), (1968, 124435), (1969, 124473),
     (1970, 124511), (1971, 124539), (1972, 124567), (1973, 124595), (1974, 124625),
     (1975, 124653), (1976, 124691), (1977, 124727), (1978, 124765), (1979, 124803),
     (1980, 124841), (1981, 124879), (1982, 124907), (1983, 124945), (1984, 124981),
     (1985, 125009), (1986, 125047), (1987, 125075), (1988, 125105), (1989, 125143),
     (1990, 125181), (1991, 125217), (1992, 125255), (1993, 125293), (1994, 125323),
     (1995, 125351), (1996, 125389), (1997, 125425), (1998, 125461), (1999, 125491),
     (2000, 125521), (2001, 125559), (2002, 125589), (2003, 125623), (2004, 125651),
     (2005, 125681), (2006, 125711), (2007, 125749), (2008, 125787), (2009, 125821),
     (2010, 125855), (2011, 125885), (2012, 125921), (2013, 125951), (2014, 125985),
     (2015, 126015), (2016, 126051), (2017, 126087), (2018, 126125), (2019, 126161),
     (2020, 126199), (2021, 126235), (2022, 126265), (2023, 126295), (2024, 126323),
     (2025, 126353), (2026, 126383), (2027, 126413), (2028, 126445), (2029, 126481),
     (2030, 126509), (2031, 126537), (2032, 126565), (2033, 126595), (2034, 126633),
     (2035, 126660), (2036, 126691), (2037, 126724), (2038, 126751), (2039, 126782),
     (2040, 126809), (2041, 126840), (2042, 126871), (2043, 126906), (2044, 126933),
     (2045, 126960), (2046, 126995), (2047, 127030), (2048, 127059), (2049, 127094),
     (2050, 127121), (2051, 127156), (2052, 127191), (2053, 127226), (2054, 127261),
     (2055, 127296), (2056, 127331), (2057, 127366), (2058, 127397), (2059, 127432),
     (2060, 127463), (2061, 127494), (2062, 127525), (2063, 127554), (2064, 127589),
     (2065, 127616), (2066, 127651), (2067, 127682), (2068, 127717), (2069, 127746),
     (2070, 127781), (2071, 127816), (2072, 127849), (2073, 127884), (2074, 127919),
     (2075, 127948), (2076, 127975), (2077, 128002), (2078, 128037), (2079, 128072),
     (2080, 128099), (2081, 128134), (2082, 128163), (2083, 128198), (2084, 128233),
     (2085, 128268), (2086, 128303), (2087, 128334), (2088, 128365), (2089, 128400),
     (2090, 128427), (2091, 128454), (2092, 128481), (2093, 128516), (2094, 128551),
     (2095, 128577), (2096, 128605), (2097, 128631), (2098, 128661), (2099, 128693)]"

definition ts_small_parse_table_map_15 :: "(nat \<times> nat) list" where
  "ts_small_parse_table_map_15 = [
     (2100, 128723), (2101, 128755), (2102, 128787), (2103, 128819), (2104, 128845),
     (2105, 128871), (2106, 128897), (2107, 128923), (2108, 128949), (2109, 128981),
     (2110, 129013), (2111, 129045), (2112, 129073), (2113, 129099), (2114, 129131),
     (2115, 129163), (2116, 129195), (2117, 129225), (2118, 129257), (2119, 129289),
     (2120, 129321), (2121, 129353), (2122, 129379), (2123, 129407), (2124, 129439),
     (2125, 129471), (2126, 129503), (2127, 129535), (2128, 129567), (2129, 129595),
     (2130, 129627), (2131, 129659), (2132, 129685), (2133, 129717), (2134, 129743),
     (2135, 129771), (2136, 129799), (2137, 129827), (2138, 129859), (2139, 129889),
     (2140, 129921), (2141, 129951), (2142, 129983), (2143, 130015), (2144, 130047),
     (2145, 130079), (2146, 130107), (2147, 130135), (2148, 130167), (2149, 130199),
     (2150, 130225), (2151, 130257), (2152, 130285), (2153, 130317), (2154, 130347),
     (2155, 130379), (2156, 130411), (2157, 130443), (2158, 130471), (2159, 130503),
     (2160, 130533), (2161, 130561), (2162, 130589), (2163, 130621), (2164, 130653),
     (2165, 130685), (2166, 130713), (2167, 130739), (2168, 130771), (2169, 130799),
     (2170, 130831), (2171, 130863), (2172, 130891), (2173, 130919), (2174, 130951),
     (2175, 130983), (2176, 131015), (2177, 131044), (2178, 131073), (2179, 131102),
     (2180, 131131), (2181, 131160), (2182, 131189), (2183, 131218), (2184, 131247),
     (2185, 131276), (2186, 131305), (2187, 131334), (2188, 131363), (2189, 131390),
     (2190, 131419), (2191, 131448), (2192, 131477), (2193, 131506), (2194, 131535),
     (2195, 131562), (2196, 131591), (2197, 131618), (2198, 131643), (2199, 131672),
     (2200, 131701), (2201, 131728), (2202, 131757), (2203, 131782), (2204, 131811),
     (2205, 131840), (2206, 131869), (2207, 131898), (2208, 131927), (2209, 131956),
     (2210, 131981), (2211, 132010), (2212, 132039), (2213, 132068), (2214, 132095),
     (2215, 132124), (2216, 132153), (2217, 132182), (2218, 132209), (2219, 132234),
     (2220, 132263), (2221, 132292), (2222, 132321), (2223, 132350), (2224, 132379),
     (2225, 132408), (2226, 132437), (2227, 132466), (2228, 132495), (2229, 132524),
     (2230, 132553), (2231, 132582), (2232, 132611), (2233, 132640), (2234, 132665),
     (2235, 132694), (2236, 132723), (2237, 132752), (2238, 132781), (2239, 132810),
     (2240, 132835), (2241, 132862), (2242, 132891), (2243, 132920), (2244, 132949),
     (2245, 132978), (2246, 133007), (2247, 133036), (2248, 133065), (2249, 133090)]"

definition ts_small_parse_table_map_16 :: "(nat \<times> nat) list" where
  "ts_small_parse_table_map_16 = [
     (2250, 133119), (2251, 133148), (2252, 133177), (2253, 133206), (2254, 133235),
     (2255, 133264), (2256, 133293), (2257, 133322), (2258, 133351), (2259, 133380),
     (2260, 133407), (2261, 133436), (2262, 133461), (2263, 133488), (2264, 133517),
     (2265, 133544), (2266, 133573), (2267, 133598), (2268, 133625), (2269, 133654),
     (2270, 133683), (2271, 133712), (2272, 133741), (2273, 133770), (2274, 133799),
     (2275, 133828), (2276, 133857), (2277, 133882), (2278, 133911), (2279, 133940),
     (2280, 133969), (2281, 133998), (2282, 134027), (2283, 134056), (2284, 134085),
     (2285, 134114), (2286, 134143), (2287, 134172), (2288, 134201), (2289, 134230),
     (2290, 134255), (2291, 134284), (2292, 134313), (2293, 134342), (2294, 134371),
     (2295, 134398), (2296, 134423), (2297, 134452), (2298, 134481), (2299, 134510),
     (2300, 134537), (2301, 134566), (2302, 134595), (2303, 134624), (2304, 134653),
     (2305, 134682), (2306, 134711), (2307, 134740), (2308, 134769), (2309, 134798),
     (2310, 134827), (2311, 134856), (2312, 134885), (2313, 134914), (2314, 134943),
     (2315, 134970), (2316, 134999), (2317, 135028), (2318, 135057), (2319, 135086),
     (2320, 135115), (2321, 135144), (2322, 135173), (2323, 135202), (2324, 135231),
     (2325, 135260), (2326, 135289), (2327, 135314), (2328, 135343), (2329, 135370),
     (2330, 135399), (2331, 135428), (2332, 135457), (2333, 135486), (2334, 135515),
     (2335, 135544), (2336, 135573), (2337, 135602), (2338, 135631), (2339, 135660),
     (2340, 135689), (2341, 135714), (2342, 135743), (2343, 135772), (2344, 135801),
     (2345, 135826), (2346, 135855), (2347, 135884), (2348, 135913), (2349, 135942),
     (2350, 135971), (2351, 136000), (2352, 136029), (2353, 136058), (2354, 136087),
     (2355, 136116), (2356, 136145), (2357, 136174), (2358, 136203), (2359, 136232),
     (2360, 136261), (2361, 136290), (2362, 136319), (2363, 136348), (2364, 136377),
     (2365, 136406), (2366, 136435), (2367, 136464), (2368, 136493), (2369, 136522),
     (2370, 136551), (2371, 136580), (2372, 136609), (2373, 136638), (2374, 136667),
     (2375, 136694), (2376, 136723), (2377, 136752), (2378, 136781), (2379, 136810),
     (2380, 136837), (2381, 136866), (2382, 136895), (2383, 136924), (2384, 136953),
     (2385, 136982), (2386, 137011), (2387, 137040), (2388, 137069), (2389, 137098),
     (2390, 137127), (2391, 137156), (2392, 137185), (2393, 137214), (2394, 137243),
     (2395, 137272), (2396, 137301), (2397, 137330), (2398, 137359), (2399, 137388)]"

definition ts_small_parse_table_map_17 :: "(nat \<times> nat) list" where
  "ts_small_parse_table_map_17 = [
     (2400, 137417), (2401, 137446), (2402, 137475), (2403, 137504), (2404, 137533),
     (2405, 137560), (2406, 137589), (2407, 137618), (2408, 137647), (2409, 137676),
     (2410, 137705), (2411, 137734), (2412, 137763), (2413, 137792), (2414, 137821),
     (2415, 137850), (2416, 137879), (2417, 137906), (2418, 137935), (2419, 137964),
     (2420, 137993), (2421, 138022), (2422, 138051), (2423, 138080), (2424, 138109),
     (2425, 138138), (2426, 138167), (2427, 138196), (2428, 138225), (2429, 138252),
     (2430, 138281), (2431, 138310), (2432, 138339), (2433, 138368), (2434, 138397),
     (2435, 138426), (2436, 138455), (2437, 138484), (2438, 138513), (2439, 138542),
     (2440, 138571), (2441, 138600), (2442, 138629), (2443, 138658), (2444, 138687),
     (2445, 138716), (2446, 138745), (2447, 138774), (2448, 138803), (2449, 138832),
     (2450, 138857), (2451, 138886), (2452, 138915), (2453, 138944), (2454, 138973),
     (2455, 139002), (2456, 139031), (2457, 139058), (2458, 139087), (2459, 139116),
     (2460, 139145), (2461, 139174), (2462, 139203), (2463, 139232), (2464, 139261),
     (2465, 139290), (2466, 139319), (2467, 139348), (2468, 139377), (2469, 139406),
     (2470, 139435), (2471, 139462), (2472, 139487), (2473, 139516), (2474, 139545),
     (2475, 139574), (2476, 139603), (2477, 139632), (2478, 139657), (2479, 139686),
     (2480, 139715), (2481, 139744), (2482, 139771), (2483, 139798), (2484, 139827),
     (2485, 139856), (2486, 139883), (2487, 139912), (2488, 139941), (2489, 139968),
     (2490, 139995), (2491, 140022), (2492, 140051), (2493, 140080), (2494, 140105),
     (2495, 140134), (2496, 140161), (2497, 140190), (2498, 140219), (2499, 140244),
     (2500, 140273), (2501, 140302), (2502, 140331), (2503, 140360), (2504, 140389),
     (2505, 140414), (2506, 140443), (2507, 140472), (2508, 140501), (2509, 140530),
     (2510, 140555), (2511, 140584), (2512, 140609), (2513, 140638), (2514, 140664),
     (2515, 140688), (2516, 140714), (2517, 140740), (2518, 140766), (2519, 140792),
     (2520, 140816), (2521, 140840), (2522, 140864), (2523, 140888), (2524, 140914),
     (2525, 140938), (2526, 140964), (2527, 140990), (2528, 141016), (2529, 141042),
     (2530, 141068), (2531, 141092), (2532, 141118), (2533, 141144), (2534, 141170),
     (2535, 141194), (2536, 141218), (2537, 141242), (2538, 141266), (2539, 141292),
     (2540, 141318), (2541, 141342), (2542, 141366), (2543, 141390), (2544, 141416),
     (2545, 141440), (2546, 141466), (2547, 141490), (2548, 141514), (2549, 141540)]"

definition ts_small_parse_table_map_18 :: "(nat \<times> nat) list" where
  "ts_small_parse_table_map_18 = [
     (2550, 141566), (2551, 141592), (2552, 141618), (2553, 141644), (2554, 141670),
     (2555, 141694), (2556, 141720), (2557, 141746), (2558, 141770), (2559, 141796),
     (2560, 141822), (2561, 141846), (2562, 141870), (2563, 141894), (2564, 141920),
     (2565, 141946), (2566, 141970), (2567, 141996), (2568, 142022), (2569, 142048),
     (2570, 142074), (2571, 142100), (2572, 142124), (2573, 142150), (2574, 142176),
     (2575, 142202), (2576, 142226), (2577, 142252), (2578, 142278), (2579, 142304),
     (2580, 142330), (2581, 142356), (2582, 142382), (2583, 142408), (2584, 142434),
     (2585, 142460), (2586, 142486), (2587, 142512), (2588, 142538), (2589, 142564),
     (2590, 142590), (2591, 142616), (2592, 142642), (2593, 142668), (2594, 142694),
     (2595, 142720), (2596, 142746), (2597, 142772), (2598, 142796), (2599, 142822),
     (2600, 142848), (2601, 142874), (2602, 142900), (2603, 142924), (2604, 142950),
     (2605, 142976), (2606, 143000), (2607, 143026), (2608, 143050), (2609, 143076),
     (2610, 143100), (2611, 143126), (2612, 143152), (2613, 143178), (2614, 143204),
     (2615, 143230), (2616, 143256), (2617, 143282), (2618, 143308), (2619, 143332),
     (2620, 143358), (2621, 143384), (2622, 143410), (2623, 143436), (2624, 143462),
     (2625, 143488), (2626, 143514), (2627, 143540), (2628, 143566), (2629, 143592),
     (2630, 143618), (2631, 143644), (2632, 143670), (2633, 143696), (2634, 143722),
     (2635, 143748), (2636, 143774), (2637, 143800), (2638, 143824), (2639, 143850),
     (2640, 143876), (2641, 143902), (2642, 143928), (2643, 143954), (2644, 143980),
     (2645, 144006), (2646, 144032), (2647, 144058), (2648, 144084), (2649, 144110),
     (2650, 144136), (2651, 144162), (2652, 144188), (2653, 144214), (2654, 144240),
     (2655, 144266), (2656, 144292), (2657, 144318), (2658, 144344), (2659, 144370),
     (2660, 144396), (2661, 144422), (2662, 144448), (2663, 144474), (2664, 144500),
     (2665, 144526), (2666, 144550), (2667, 144576), (2668, 144602), (2669, 144628),
     (2670, 144654), (2671, 144680), (2672, 144706), (2673, 144732), (2674, 144758),
     (2675, 144782), (2676, 144808), (2677, 144834), (2678, 144860), (2679, 144884),
     (2680, 144910), (2681, 144936), (2682, 144962), (2683, 144988), (2684, 145014),
     (2685, 145040), (2686, 145066), (2687, 145090), (2688, 145116), (2689, 145140),
     (2690, 145166), (2691, 145190), (2692, 145216), (2693, 145242), (2694, 145268),
     (2695, 145294), (2696, 145320), (2697, 145344), (2698, 145368), (2699, 145394)]"

definition ts_small_parse_table_map_19 :: "(nat \<times> nat) list" where
  "ts_small_parse_table_map_19 = [
     (2700, 145420), (2701, 145446), (2702, 145472), (2703, 145498), (2704, 145524),
     (2705, 145550), (2706, 145576), (2707, 145602), (2708, 145628), (2709, 145654),
     (2710, 145680), (2711, 145704), (2712, 145730), (2713, 145756), (2714, 145782),
     (2715, 145808), (2716, 145834), (2717, 145860), (2718, 145886), (2719, 145910),
     (2720, 145936), (2721, 145962), (2722, 145988), (2723, 146014), (2724, 146040),
     (2725, 146066), (2726, 146092), (2727, 146116), (2728, 146142), (2729, 146166),
     (2730, 146190), (2731, 146216), (2732, 146242), (2733, 146268), (2734, 146294),
     (2735, 146318), (2736, 146344), (2737, 146368), (2738, 146394), (2739, 146420),
     (2740, 146446), (2741, 146470), (2742, 146496), (2743, 146522), (2744, 146548),
     (2745, 146574), (2746, 146600), (2747, 146626), (2748, 146652), (2749, 146678),
     (2750, 146704), (2751, 146730), (2752, 146756), (2753, 146782), (2754, 146806),
     (2755, 146830), (2756, 146856), (2757, 146882), (2758, 146908), (2759, 146934),
     (2760, 146960), (2761, 146984), (2762, 147010), (2763, 147034), (2764, 147058),
     (2765, 147084), (2766, 147110), (2767, 147136), (2768, 147162), (2769, 147188),
     (2770, 147212), (2771, 147238), (2772, 147264), (2773, 147288), (2774, 147312),
     (2775, 147336), (2776, 147360), (2777, 147384), (2778, 147410), (2779, 147434),
     (2780, 147457), (2781, 147480), (2782, 147503), (2783, 147526), (2784, 147549),
     (2785, 147572), (2786, 147595), (2787, 147618), (2788, 147641), (2789, 147664),
     (2790, 147687), (2791, 147710), (2792, 147733), (2793, 147756), (2794, 147779),
     (2795, 147802), (2796, 147825), (2797, 147848), (2798, 147871), (2799, 147894),
     (2800, 147917), (2801, 147940), (2802, 147963), (2803, 147986), (2804, 148009),
     (2805, 148032), (2806, 148055), (2807, 148078), (2808, 148101), (2809, 148124),
     (2810, 148147), (2811, 148170), (2812, 148193), (2813, 148216), (2814, 148239),
     (2815, 148262), (2816, 148285), (2817, 148308), (2818, 148331), (2819, 148354),
     (2820, 148377), (2821, 148400), (2822, 148423), (2823, 148446), (2824, 148469),
     (2825, 148492), (2826, 148515), (2827, 148538), (2828, 148561), (2829, 148584),
     (2830, 148607), (2831, 148630), (2832, 148653), (2833, 148676), (2834, 148699),
     (2835, 148722), (2836, 148745), (2837, 148768), (2838, 148791), (2839, 148814),
     (2840, 148837), (2841, 148860), (2842, 148883), (2843, 148906), (2844, 148929),
     (2845, 148952), (2846, 148975), (2847, 148998), (2848, 149021), (2849, 149044)]"

definition ts_small_parse_table_map_20 :: "(nat \<times> nat) list" where
  "ts_small_parse_table_map_20 = [
     (2850, 149067), (2851, 149090), (2852, 149113), (2853, 149136), (2854, 149159),
     (2855, 149182), (2856, 149205), (2857, 149228), (2858, 149251), (2859, 149274),
     (2860, 149297), (2861, 149320), (2862, 149343), (2863, 149366), (2864, 149389),
     (2865, 149412), (2866, 149435), (2867, 149458), (2868, 149481), (2869, 149504),
     (2870, 149527), (2871, 149550), (2872, 149573), (2873, 149596), (2874, 149619),
     (2875, 149642), (2876, 149665), (2877, 149688), (2878, 149711), (2879, 149734),
     (2880, 149757), (2881, 149780), (2882, 149803), (2883, 149826), (2884, 149849),
     (2885, 149872), (2886, 149895), (2887, 149918), (2888, 149941), (2889, 149964),
     (2890, 149987), (2891, 150010), (2892, 150033), (2893, 150056), (2894, 150079),
     (2895, 150102), (2896, 150125), (2897, 150148), (2898, 150171), (2899, 150194),
     (2900, 150217), (2901, 150240), (2902, 150263), (2903, 150286), (2904, 150309),
     (2905, 150332), (2906, 150355), (2907, 150378), (2908, 150401), (2909, 150424),
     (2910, 150447), (2911, 150470), (2912, 150493), (2913, 150516), (2914, 150539),
     (2915, 150562), (2916, 150585), (2917, 150608), (2918, 150631), (2919, 150654),
     (2920, 150677), (2921, 150700), (2922, 150723), (2923, 150746), (2924, 150769),
     (2925, 150792), (2926, 150815), (2927, 150838), (2928, 150861), (2929, 150884),
     (2930, 150907), (2931, 150930), (2932, 150953), (2933, 150976), (2934, 150999),
     (2935, 151022), (2936, 151045), (2937, 151068), (2938, 151091), (2939, 151114),
     (2940, 151137), (2941, 151160), (2942, 151183), (2943, 151206), (2944, 151229),
     (2945, 151252), (2946, 151275), (2947, 151298), (2948, 151321), (2949, 151344),
     (2950, 151367), (2951, 151390), (2952, 151413), (2953, 151436), (2954, 151459),
     (2955, 151482), (2956, 151505), (2957, 151528), (2958, 151551), (2959, 151574),
     (2960, 151597), (2961, 151620), (2962, 151643), (2963, 151666), (2964, 151689),
     (2965, 151712), (2966, 151735), (2967, 151758), (2968, 151781), (2969, 151804),
     (2970, 151827), (2971, 151850), (2972, 151873), (2973, 151896), (2974, 151919),
     (2975, 151942), (2976, 151965), (2977, 151988), (2978, 152011), (2979, 152034),
     (2980, 152057), (2981, 152080), (2982, 152103), (2983, 152126), (2984, 152149),
     (2985, 152172), (2986, 152195), (2987, 152218), (2988, 152241), (2989, 152264),
     (2990, 152287), (2991, 152310), (2992, 152333), (2993, 152356), (2994, 152379),
     (2995, 152402), (2996, 152425), (2997, 152448), (2998, 152471), (2999, 152494)]"

definition ts_small_parse_table_map_21 :: "(nat \<times> nat) list" where
  "ts_small_parse_table_map_21 = [
     (3000, 152517), (3001, 152540), (3002, 152563), (3003, 152586), (3004, 152609),
     (3005, 152632), (3006, 152655), (3007, 152678), (3008, 152701), (3009, 152724),
     (3010, 152747), (3011, 152770), (3012, 152793), (3013, 152816), (3014, 152839),
     (3015, 152862), (3016, 152885), (3017, 152908), (3018, 152931), (3019, 152954),
     (3020, 152977), (3021, 153000), (3022, 153023), (3023, 153046), (3024, 153069),
     (3025, 153092), (3026, 153115), (3027, 153138), (3028, 153161), (3029, 153184),
     (3030, 153207), (3031, 153230), (3032, 153253), (3033, 153276), (3034, 153299),
     (3035, 153322), (3036, 153345), (3037, 153368), (3038, 153391), (3039, 153414),
     (3040, 153437), (3041, 153460), (3042, 153483), (3043, 153506), (3044, 153529),
     (3045, 153552), (3046, 153575), (3047, 153598), (3048, 153621), (3049, 153644),
     (3050, 153667), (3051, 153690), (3052, 153713), (3053, 153736), (3054, 153759),
     (3055, 153782), (3056, 153805), (3057, 153828), (3058, 153851), (3059, 153874),
     (3060, 153897), (3061, 153920), (3062, 153943), (3063, 153966), (3064, 153989),
     (3065, 154012), (3066, 154035), (3067, 154058), (3068, 154081), (3069, 154104),
     (3070, 154127), (3071, 154150), (3072, 154173), (3073, 154196), (3074, 154219),
     (3075, 154242), (3076, 154265), (3077, 154288), (3078, 154311), (3079, 154315),
     (3080, 154319), (3081, 154323), (3082, 154327)]"

definition ts_small_parse_table_map_table :: "(nat \<times> nat) list" where
  "ts_small_parse_table_map_table =
     ts_small_parse_table_map_1 @ ts_small_parse_table_map_2 @ ts_small_parse_table_map_3 @
     ts_small_parse_table_map_4 @ ts_small_parse_table_map_5 @ ts_small_parse_table_map_6 @
     ts_small_parse_table_map_7 @ ts_small_parse_table_map_8 @ ts_small_parse_table_map_9 @
     ts_small_parse_table_map_10 @ ts_small_parse_table_map_11 @ ts_small_parse_table_map_12 @
     ts_small_parse_table_map_13 @ ts_small_parse_table_map_14 @ ts_small_parse_table_map_15 @
     ts_small_parse_table_map_16 @ ts_small_parse_table_map_17 @ ts_small_parse_table_map_18 @
     ts_small_parse_table_map_19 @ ts_small_parse_table_map_20 @ ts_small_parse_table_map_21"

definition ts_small_parse_table_map :: "nat \<rightharpoonup> nat" where
  "ts_small_parse_table_map = map_of ts_small_parse_table_map_table"

lemma small_map_keys:
  "map fst ts_small_parse_table_map_1 = [0..<150]"
  "map fst ts_small_parse_table_map_2 = [150..<300]"
  "map fst ts_small_parse_table_map_3 = [300..<450]"
  "map fst ts_small_parse_table_map_4 = [450..<600]"
  "map fst ts_small_parse_table_map_5 = [600..<750]"
  "map fst ts_small_parse_table_map_6 = [750..<900]"
  "map fst ts_small_parse_table_map_7 = [900..<1050]"
  "map fst ts_small_parse_table_map_8 = [1050..<1200]"
  "map fst ts_small_parse_table_map_9 = [1200..<1350]"
  "map fst ts_small_parse_table_map_10 = [1350..<1500]"
  "map fst ts_small_parse_table_map_11 = [1500..<1650]"
  "map fst ts_small_parse_table_map_12 = [1650..<1800]"
  "map fst ts_small_parse_table_map_13 = [1800..<1950]"
  "map fst ts_small_parse_table_map_14 = [1950..<2100]"
  "map fst ts_small_parse_table_map_15 = [2100..<2250]"
  "map fst ts_small_parse_table_map_16 = [2250..<2400]"
  "map fst ts_small_parse_table_map_17 = [2400..<2550]"
  "map fst ts_small_parse_table_map_18 = [2550..<2700]"
  "map fst ts_small_parse_table_map_19 = [2700..<2850]"
  "map fst ts_small_parse_table_map_20 = [2850..<3000]"
  "map fst ts_small_parse_table_map_21 = [3000..<3083]"
  by (simp add: ts_small_parse_table_map_1_def upt_from_0)
    (simp_all add: ts_small_parse_table_map_2_def ts_small_parse_table_map_3_def ts_small_parse_table_map_4_def
    ts_small_parse_table_map_5_def ts_small_parse_table_map_6_def ts_small_parse_table_map_7_def
    ts_small_parse_table_map_8_def ts_small_parse_table_map_9_def ts_small_parse_table_map_10_def
    ts_small_parse_table_map_11_def ts_small_parse_table_map_12_def ts_small_parse_table_map_13_def
    ts_small_parse_table_map_14_def ts_small_parse_table_map_15_def ts_small_parse_table_map_16_def
    ts_small_parse_table_map_17_def ts_small_parse_table_map_18_def ts_small_parse_table_map_19_def
    ts_small_parse_table_map_20_def ts_small_parse_table_map_21_def)

lemma small_map_keys_all: "map fst ts_small_parse_table_map_table = [0..<3083]"
  by (simp add: ts_small_parse_table_map_table_def small_map_keys upt_join del: upt_rec_numeral)

lemma small_map_dom: "ts_small_parse_table_map i \<noteq> None \<longleftrightarrow> i < STATE_COUNT - LARGE_STATE_COUNT"
  using map_of_upt_keys [OF small_map_keys_all, of i] by (simp add: ts_small_parse_table_map_def)

lemma small_map_eqs_blocks:
  "list_all (\<lambda>(k, x). ts_small_parse_table_map k = Some x) ts_small_parse_table_map_1"
  "list_all (\<lambda>(k, x). ts_small_parse_table_map k = Some x) ts_small_parse_table_map_2"
  "list_all (\<lambda>(k, x). ts_small_parse_table_map k = Some x) ts_small_parse_table_map_3"
  "list_all (\<lambda>(k, x). ts_small_parse_table_map k = Some x) ts_small_parse_table_map_4"
  "list_all (\<lambda>(k, x). ts_small_parse_table_map k = Some x) ts_small_parse_table_map_5"
  "list_all (\<lambda>(k, x). ts_small_parse_table_map k = Some x) ts_small_parse_table_map_6"
  "list_all (\<lambda>(k, x). ts_small_parse_table_map k = Some x) ts_small_parse_table_map_7"
  "list_all (\<lambda>(k, x). ts_small_parse_table_map k = Some x) ts_small_parse_table_map_8"
  "list_all (\<lambda>(k, x). ts_small_parse_table_map k = Some x) ts_small_parse_table_map_9"
  "list_all (\<lambda>(k, x). ts_small_parse_table_map k = Some x) ts_small_parse_table_map_10"
  "list_all (\<lambda>(k, x). ts_small_parse_table_map k = Some x) ts_small_parse_table_map_11"
  "list_all (\<lambda>(k, x). ts_small_parse_table_map k = Some x) ts_small_parse_table_map_12"
  "list_all (\<lambda>(k, x). ts_small_parse_table_map k = Some x) ts_small_parse_table_map_13"
  "list_all (\<lambda>(k, x). ts_small_parse_table_map k = Some x) ts_small_parse_table_map_14"
  "list_all (\<lambda>(k, x). ts_small_parse_table_map k = Some x) ts_small_parse_table_map_15"
  "list_all (\<lambda>(k, x). ts_small_parse_table_map k = Some x) ts_small_parse_table_map_16"
  "list_all (\<lambda>(k, x). ts_small_parse_table_map k = Some x) ts_small_parse_table_map_17"
  "list_all (\<lambda>(k, x). ts_small_parse_table_map k = Some x) ts_small_parse_table_map_18"
  "list_all (\<lambda>(k, x). ts_small_parse_table_map k = Some x) ts_small_parse_table_map_19"
  "list_all (\<lambda>(k, x). ts_small_parse_table_map k = Some x) ts_small_parse_table_map_20"
  "list_all (\<lambda>(k, x). ts_small_parse_table_map k = Some x) ts_small_parse_table_map_21"
  using map_of_all [of ts_small_parse_table_map_table, unfolded small_map_keys_all, OF distinct_upt, folded ts_small_parse_table_map_def]
  by (simp_all add: ts_small_parse_table_map_table_def list_all_append)

lemmas small_map_eqs [simp] =
  small_map_eqs_blocks(1) [unfolded ts_small_parse_table_map_1_def list_all_tens prod.case One_nat_def]
  small_map_eqs_blocks(2) [unfolded ts_small_parse_table_map_2_def list_all_tens prod.case One_nat_def]
  small_map_eqs_blocks(3) [unfolded ts_small_parse_table_map_3_def list_all_tens prod.case One_nat_def]
  small_map_eqs_blocks(4) [unfolded ts_small_parse_table_map_4_def list_all_tens prod.case One_nat_def]
  small_map_eqs_blocks(5) [unfolded ts_small_parse_table_map_5_def list_all_tens prod.case One_nat_def]
  small_map_eqs_blocks(6) [unfolded ts_small_parse_table_map_6_def list_all_tens prod.case One_nat_def]
  small_map_eqs_blocks(7) [unfolded ts_small_parse_table_map_7_def list_all_tens prod.case One_nat_def]
  small_map_eqs_blocks(8) [unfolded ts_small_parse_table_map_8_def list_all_tens prod.case One_nat_def]
  small_map_eqs_blocks(9) [unfolded ts_small_parse_table_map_9_def list_all_tens prod.case One_nat_def]
  small_map_eqs_blocks(10) [unfolded ts_small_parse_table_map_10_def list_all_tens prod.case One_nat_def]
  small_map_eqs_blocks(11) [unfolded ts_small_parse_table_map_11_def list_all_tens prod.case One_nat_def]
  small_map_eqs_blocks(12) [unfolded ts_small_parse_table_map_12_def list_all_tens prod.case One_nat_def]
  small_map_eqs_blocks(13) [unfolded ts_small_parse_table_map_13_def list_all_tens prod.case One_nat_def]
  small_map_eqs_blocks(14) [unfolded ts_small_parse_table_map_14_def list_all_tens prod.case One_nat_def]
  small_map_eqs_blocks(15) [unfolded ts_small_parse_table_map_15_def list_all_tens prod.case One_nat_def]
  small_map_eqs_blocks(16) [unfolded ts_small_parse_table_map_16_def list_all_tens prod.case One_nat_def]
  small_map_eqs_blocks(17) [unfolded ts_small_parse_table_map_17_def list_all_tens prod.case One_nat_def]
  small_map_eqs_blocks(18) [unfolded ts_small_parse_table_map_18_def list_all_tens prod.case One_nat_def]
  small_map_eqs_blocks(19) [unfolded ts_small_parse_table_map_19_def list_all_tens prod.case One_nat_def]
  small_map_eqs_blocks(20) [unfolded ts_small_parse_table_map_20_def list_all_tens prod.case One_nat_def]
  small_map_eqs_blocks(21) [unfolded ts_small_parse_table_map_21_def list_all_tens prod.case One_nat_def]

end
