(* ===== verification/Dart_Items.thy ===== *)
theory Dart_Items
  imports Dart_Table
begin

text \<open>
  What the states of the parse tables expect of the stack. \<^verbatim>\<open>parser.c\<close> does not hold the items its
  states were built from; \<open>lr_items\<close> is a certificate of them. The item \<open>Item n X\<close> of a state says that
  the last \<open>n\<close> symbols on the stack are the start of the right-hand side of a rule for \<open>X\<close>, so the
  state \<open>n\<close> symbols further down must have an entry for \<open>X\<close>; \<open>Bottom\<close> says that the state below is
  the start state. The error state 0 and the start state 1 have no items, nothing leads to them. The
  check of a state is local: each entry of the state only looks at the items of the state and of
  those it leads to.
\<close>

datatype lr_item = Item nat TSSymbol | Bottom

text \<open>The state a whole program leads to.\<close>

abbreviation (input) accept_state :: TSStateId where "accept_state \<equiv> 3430"

subsection \<open>The items\<close>

definition lr_items_1 :: "(TSStateId \<times> lr_item list) list" where
  "lr_items_1 = [
     (2, [Item 1 sym_block, Item 1 sym_map_pattern, Item 1 sym_set_or_map_literal]), (3,
       [Item 1 sym_block, Item 1 sym_map_pattern, Item 1 sym_set_or_map_literal]), (4,
       [Item 1 sym_block, Item 1 sym_map_pattern, Item 1 sym_set_or_map_literal]), (5,
       [Item 4 sym_if_element, Item 4 sym_if_statement]), (6, [Item 2 sym_for_element,
       Item 2 sym_for_statement]), (7, [Item 6 sym_if_element, Item 6 sym_if_statement]), (8,
       [Item 3 sym_for_element, Item 3 sym_for_statement]), (9, [Item 1 aux_sym_block_repeat1,
       Item 5 sym_switch_statement_case]), (10, [Item 3 sym_switch_statement_case]), (11,
       [Item 4 sym_switch_statement_case]), (12, [Item 1 aux_sym_block_repeat1,
       Item 4 sym_switch_statement_case]), (13, [Item 1 aux_sym_block_repeat1,
       Item 2 aux_sym_block_repeat1]), (14, [Item 1 sym_block]), (15, [Item 1 sym_block]), (16,
       [Item 1 aux_sym_block_repeat1, Item 2 sym_block]), (17, [Item 1 aux_sym_block_repeat1,
       Item 3 sym_switch_statement_default]), (18, [Item 1 sym_block]), (19,
       [Item 2 sym_switch_statement_default]), (20, [Item 1 sym_block]), (21,
       [Item 1 sym_block]), (22, [Item 3 sym_switch_statement_default]), (23,
       [Item 1 aux_sym_block_repeat1, Item 2 sym_block]), (24, [Item 1 aux_sym_block_repeat1,
       Item 2 sym_block]), (25, [Item 1 aux_sym_block_repeat1, Item 2 sym_block]), (26,
       [Item 1 aux_sym_block_repeat1, Item 4 sym_switch_statement_default]), (27,
       [Item 1 aux_sym_block_repeat1, Item 2 sym_block]), (28, [Item 6 sym_if_statement]), (29,
       [Item 8 sym_if_statement]), (30, [Item 2 sym_while_statement]), (31,
       [Item 8 sym_if_statement]), (32, [Item 4 sym_if_statement]), (33,
       [Item 2 sym_for_statement]), (34, [Item 6 sym_if_statement]), (35,
       [Item 3 sym_for_statement]), (36, [Item 2 sym_for_statement]), (37,
       [Item 1 sym_do_statement]), (38, [Item 3 sym_for_statement]), (39,
       [Item 2 sym_while_statement]), (40, [Item 4 sym_if_statement]), (41,
       [Item 6 sym_if_statement]), (42, [Item 6 sym_if_statement]), (43,
       [Item 1 sym__optional_postional_formal_parameters, Item 1 sym_list_literal,
       Item 1 sym_list_pattern]), (44, [Item 1 sym__optional_postional_formal_parameters,
       Item 1 sym_list_literal, Item 1 sym_list_pattern]), (45,
       [Item 1 sym__parenthesized_pattern, Item 1 sym__record_literal_no_const,
       Item 1 sym__strict_formal_parameter_list, Item 1 sym_parenthesized_expression,
       Item 1 sym_record_pattern, Item 1 sym_record_type]), (46,
       [Item 1 sym__parenthesized_pattern, Item 1 sym__record_literal_no_const,
       Item 1 sym__strict_formal_parameter_list, Item 1 sym_parenthesized_expression,
       Item 1 sym_record_pattern]), (47, [Item 1 sym__parenthesized_pattern,
       Item 1 sym__record_literal_no_const, Item 1 sym__strict_formal_parameter_list,
       Item 1 sym_parenthesized_expression, Item 1 sym_record_pattern]), (48,
       [Item 1 sym__named_formal_parameters, Item 1 sym_map_pattern,
       Item 1 sym_set_or_map_literal, Item 2 sym_record_type]), (49,
       [Item 1 sym__named_formal_parameters, Item 1 sym_map_pattern,
       Item 1 sym_set_or_map_literal]), (50, [Item 1 sym__named_formal_parameters,
       Item 1 sym_map_pattern, Item 1 sym_set_or_map_literal]), (51, [Item 1 sym_list_literal,
       Item 1 sym_list_pattern]), (52, [Item 2 sym_list_literal, Item 2 sym_list_pattern]), (53,
       [Item 1 sym_list_literal, Item 1 sym_list_pattern]), (54, [Item 2 sym_list_literal,
       Item 2 sym_list_pattern]), (55, [Item 1 sym_list_literal, Item 1 sym_list_pattern]), (56,
       [Item 2 sym_list_literal, Item 2 sym_list_pattern]), (57,
       [Item 1 sym__record_literal_no_const, Item 1 sym__strict_formal_parameter_list,
       Item 1 sym_parenthesized_expression]), (58, [Item 1 sym__record_literal_no_const,
       Item 1 sym__strict_formal_parameter_list, Item 1 sym_parenthesized_expression]), (59,
       [Item 1 sym__record_literal_no_const, Item 1 sym__strict_formal_parameter_list,
       Item 1 sym_parenthesized_expression]), (60, [Item 1 sym__record_literal_no_const,
       Item 1 sym__strict_formal_parameter_list, Item 1 sym_parenthesized_expression]), (61,
       [Item 1 sym_rest_pattern, Item 1 sym_spread_element]), (62,
       [Item 2 sym__map_pattern_entry, Item 2 sym_pair]), (63, [Item 1 sym_for_loop_parts]),
       (64, [Item 1 sym_map_pattern, Item 1 sym_set_or_map_literal, Item 2 sym_record_type]),
       (65, [Item 1 sym_map_pattern, Item 2 sym_record_type]), (66,
       [Item 1 sym__record_literal_no_const, Item 1 sym_record_type]), (67,
       [Item 1 sym__record_literal_no_const, Item 1 sym_record_type]), (68,
       [Item 1 sym__record_literal_no_const, Item 1 sym_record_type]), (69,
       [Item 1 sym__record_literal_no_const, Item 1 sym_record_type]), (70,
       [Item 1 sym__record_literal_no_const, Item 1 sym_record_type,
       Item 2 sym_constant_pattern]), (71, [Item 1 sym_record_type,
       Item 2 sym_constant_pattern]), (72, [Item 2 sym_map_pattern,
       Item 2 sym_set_or_map_literal]), (73, [Item 1 sym_map_pattern,
       Item 1 sym_set_or_map_literal]), (74, [Item 2 sym_map_pattern,
       Item 2 sym_set_or_map_literal]), (75, [Item 1 sym_map_pattern,
       Item 1 sym_set_or_map_literal]), (76, [Item 1 sym_map_pattern,
       Item 1 sym_set_or_map_literal]), (77, [Item 2 sym_map_pattern,
       Item 2 sym_set_or_map_literal]), (78, [Item 1 aux_sym_list_literal_repeat1,
       Item 3 sym_list_literal]), (79, [Item 1 aux_sym_list_literal_repeat1,
       Item 5 sym_constant_pattern]), (80, [Item 3 sym_set_or_map_literal]), (81,
       [Item 1 aux_sym_list_literal_repeat1, Item 3 sym_list_literal]), (82,
       [Item 1 aux_sym_list_literal_repeat1, Item 3 sym_set_or_map_literal]), (83,
       [Item 2 sym_list_literal]), (84, [Item 2 sym_set_or_map_literal]), (85,
       [Item 1 sym_list_literal]), (86, [Item 1 sym_set_or_map_literal]), (87,
       [Item 1 aux_sym_list_literal_repeat1, Item 4 sym_constant_pattern,
       Item 4 sym_set_or_map_literal]), (88, [Item 1 aux_sym_list_literal_repeat1,
       Item 4 sym_constant_pattern, Item 4 sym_list_literal]), (89,
       [Item 2 sym_constant_pattern, Item 2 sym_list_literal]), (90,
       [Item 2 sym_constant_pattern, Item 2 sym_set_or_map_literal]), (91,
       [Item 1 sym_set_or_map_literal]), (92, [Item 1 sym_list_literal]), (93,
       [Item 1 aux_sym_list_literal_repeat1, Item 6 sym_list_literal]), (94,
       [Item 1 aux_sym_list_literal_repeat1, Item 4 sym_list_literal]), (95,
       [Item 1 aux_sym_list_literal_repeat1, Item 6 sym_set_or_map_literal]), (96,
       [Item 1 aux_sym_list_literal_repeat1, Item 6 sym_constant_pattern]), (97,
       [Item 1 aux_sym_list_literal_repeat1, Item 5 sym_list_literal]), (98,
       [Item 1 aux_sym_list_literal_repeat1, Item 5 sym_set_or_map_literal]), (99,
       [Item 1 aux_sym_list_literal_repeat1, Item 6 sym_constant_pattern]), (100,
       [Item 1 aux_sym_list_literal_repeat1, Item 6 sym_set_or_map_literal]), (101,
       [Item 1 aux_sym_list_literal_repeat1, Item 4 sym_list_literal]), (102,
       [Item 1 aux_sym_list_literal_repeat1, Item 4 sym_set_or_map_literal]), (103,
       [Item 1 aux_sym_list_literal_repeat1, Item 3 sym_set_or_map_literal]), (104,
       [Item 3 sym_list_literal]), (105, [Item 3 sym_set_or_map_literal]), (106,
       [Item 1 aux_sym_list_literal_repeat1, Item 3 sym_list_literal]), (107,
       [Item 1 aux_sym_list_literal_repeat1, Item 3 sym_set_or_map_literal]), (108,
       [Item 1 aux_sym_list_literal_repeat1, Item 5 sym_constant_pattern,
       Item 5 sym_list_literal]), (109, [Item 1 aux_sym_list_literal_repeat1,
       Item 4 sym_set_or_map_literal]), (110, [Item 1 aux_sym_list_literal_repeat1,
       Item 4 sym_set_or_map_literal]), (111, [Item 2 sym_list_literal]), (112,
       [Item 2 sym_set_or_map_literal]), (113, [Item 1 sym_list_literal]), (114,
       [Item 1 sym_set_or_map_literal]), (115, [Item 3 sym_list_literal]), (116,
       [Item 3 sym_set_or_map_literal]), (117, [Item 1 aux_sym_list_literal_repeat1,
       Item 4 sym_list_literal]), (118, [Item 1 aux_sym_list_literal_repeat1,
       Item 5 sym_constant_pattern]), (119, [Item 3 sym_list_literal]), (120,
       [Item 1 aux_sym_list_literal_repeat1, Item 6 sym_list_literal]), (121,
       [Item 1 aux_sym_list_literal_repeat1, Item 5 sym_list_literal]), (122,
       [Item 1 aux_sym_list_literal_repeat1, Item 5 sym_set_or_map_literal]), (123,
       [Item 1 sym_set_or_map_literal]), (124, [Item 1 aux_sym_list_literal_repeat1,
       Item 6 sym_constant_pattern, Item 6 sym_list_literal]), (125, [Item 1 sym_list_literal]),
       (126, [Item 1 aux_sym_list_literal_repeat1, Item 6 sym_constant_pattern,
       Item 6 sym_set_or_map_literal]), (127, [Item 1 aux_sym_list_literal_repeat1,
       Item 5 sym_list_literal]), (128, [Item 1 aux_sym_list_literal_repeat1,
       Item 5 sym_list_literal]), (129, [Item 1 aux_sym_list_literal_repeat1,
       Item 5 sym_set_or_map_literal]), (130, [Item 1 aux_sym_list_literal_repeat1,
       Item 4 sym_set_or_map_literal]), (131, [Item 1 aux_sym_list_literal_repeat1,
       Item 5 sym_set_or_map_literal]), (132, [Item 1 aux_sym_list_literal_repeat1,
       Item 6 sym_list_literal]), (133, [Item 1 aux_sym_list_literal_repeat1,
       Item 6 sym_set_or_map_literal]), (134, [Item 1 aux_sym_list_literal_repeat1,
       Item 6 sym_set_or_map_literal]), (135, [Item 1 aux_sym_list_literal_repeat1,
       Item 6 sym_list_literal]), (136, [Item 3 sym_list_literal]), (137,
       [Item 3 sym_constant_pattern, Item 3 sym_set_or_map_literal]), (138,
       [Item 3 sym_constant_pattern, Item 3 sym_list_literal]), (139,
       [Item 1 aux_sym_list_literal_repeat1, Item 4 sym_list_literal]), (140,
       [Item 3 sym_set_or_map_literal]), (141, [Item 2 sym_list_literal]), (142,
       [Item 1 aux_sym_list_literal_repeat1, Item 3 sym_list_literal]), (143,
       [Item 1 aux_sym_list_literal_repeat1, Item 3 sym_set_or_map_literal]), (144,
       [Item 1 aux_sym_list_literal_repeat1, Item 4 sym_constant_pattern]), (145,
       [Item 1 aux_sym_list_literal_repeat1, Item 4 sym_constant_pattern]), (146,
       [Item 1 aux_sym_list_literal_repeat1, Item 5 sym_constant_pattern,
       Item 5 sym_set_or_map_literal]), (147, [Item 2 sym_list_literal]), (148,
       [Item 2 sym_set_or_map_literal]), (149, [Item 2 sym_set_or_map_literal]), (150,
       [Item 3 sym_for_element]), (151, [Item 6 sym_if_element])]"

definition lr_items_2 :: "(TSStateId \<times> lr_item list) list" where
  "lr_items_2 = [
     (152, [Item 6 sym_if_element]), (153, [Item 2 sym_constant_pattern]), (154,
       [Item 4 sym_if_element]), (155, [Item 3 sym_constant_pattern]), (156,
       [Item 2 sym_constant_pattern]), (157, [Item 3 sym_constant_pattern]), (158,
       [Item 8 sym_if_element]), (159, [Item 1 aux_sym_list_literal_repeat1]), (160,
       [Item 2 sym_for_element]), (161, [Item 1 sym_arguments]), (162, [Item 1 sym_arguments]),
       (163, [Item 1 sym_arguments]), (164, [Item 1 sym_arguments]), (165,
       [Item 1 sym_arguments]), (166, [Item 1 sym_arguments]), (167, [Item 1 sym_arguments]),
       (168, [Item 1 sym_arguments]), (169, [Item 1 sym_arguments]), (170,
       [Item 1 aux_sym__argument_list_repeat1, Item 3 sym__argument_list]), (171,
       [Item 1 aux_sym__argument_list_repeat1, Item 2 sym__argument_list]), (172,
       [Item 1 aux_sym__argument_list_repeat1]), (173, [Item 1 aux_sym_map_pattern_repeat1,
       Item 4 sym_map_pattern]), (174, [Item 1 sym_map_pattern]), (175,
       [Item 1 aux_sym_map_pattern_repeat1, Item 3 sym_map_pattern]), (176,
       [Item 1 sym__map_pattern_entry, Item 1 sym_spread_element]), (177,
       [Item 1 aux_sym__record_literal_no_const_repeat1, Item 4 sym__record_literal_no_const]),
       (178, [Item 1 aux_sym__record_literal_no_const_repeat1,
       Item 4 sym__record_literal_no_const]), (179, [Item 2 sym_map_pattern]), (180,
       [Item 1 aux_sym__record_literal_no_const_repeat1, Item 4 sym__record_literal_no_const]),
       (181, [Item 1 sym__for_loop_parts]), (182,
       [Item 1 aux_sym__record_literal_no_const_repeat1, Item 4 sym__record_literal_no_const]),
       (183, [Item 1 aux_sym_map_pattern_repeat1, Item 5 sym_map_pattern]), (184,
       [Item 2 sym__for_loop_parts]), (185, [Item 1 aux_sym_map_pattern_repeat1]), (186,
       [Item 1 aux_sym__record_literal_no_const_repeat1]), (187, [Item 1 sym__for_loop_parts]),
       (188, [Item 3 sym__for_loop_parts]), (189, [Item 1 sym_return_statement]), (190,
       [Item 5 sym__for_loop_parts]), (191, [Item 1 sym_yield_each_statement,
       Item 1 sym_yield_statement]), (192, [Item 1 sym_spread_element]), (193,
       [Item 3 sym_assertion_arguments]), (194, [Item 2 sym__for_loop_parts]), (195,
       [Item 2 sym__for_loop_parts]), (196, [Item 3 sym__for_loop_parts]), (197,
       [Item 4 sym__for_loop_parts]), (198, [Item 4 sym__for_loop_parts]), (199,
       [Item 3 sym__for_loop_parts]), (200, [Item 3 sym__for_loop_parts]), (201,
       [Item 1 sym_function_expression_body]), (202, [Item 1 sym_index_selector]), (203,
       [Item 2 sym_function_expression_body]), (204, [Item 1 sym_function_expression_body]),
       (205, [Item 2 sym_pattern_assignment]), (206, [Item 2 sym_if_statement]), (207,
       [Item 2 sym_assignment_expression]), (208, [Item 2 sym_template_substitution]), (209,
       [Item 1 sym_named_argument]), (210, [Item 2 sym_assignment_expression]), (211,
       [Item 1 sym_index_selector]), (212, [Item 1 sym_index_selector]), (213,
       [Item 1 sym_record_field, Item 2 sym__record_literal_no_const]), (214,
       [Item 2 sym_pattern_assignment]), (215, [Item 1 sym_index_selector]), (216,
       [Item 1 sym_index_selector]), (217, [Item 1 sym_index_selector]), (218,
       [Item 1 aux_sym__for_loop_parts_repeat1]), (219, [Item 2 sym__for_loop_parts]), (220,
       [Item 1 sym_parenthesized_expression]), (221, [Item 1 sym_index_selector]), (222,
       [Item 2 sym_yield_each_statement]), (223, [Item 3 sym__for_loop_parts]), (224,
       [Item 2 sym_if_statement]), (225, [Item 1 aux_sym__for_loop_parts_repeat2]), (226,
       [Item 1 sym_index_selector]), (227, [Item 1 sym_index_selector]), (228,
       [Item 1 sym_assertion_arguments]), (229, [Item 1 sym_index_selector]), (230,
       [Item 2 sym_assignment_expression]), (231, [Item 2 sym__for_loop_parts]), (232,
       [Item 1 sym_index_selector]), (233, [Item 2 sym_pattern_assignment]), (234,
       [Item 2 sym_initialized_variable_definition]), (235, [Item 1 sym_record_field]), (236,
       [Item 1 sym_parenthesized_expression]), (237, [Item 1 sym_function_expression_body]),
       (238, [Item 1 sym_record_field, Item 2 sym__record_literal_no_const]), (239,
       [Item 1 sym_throw_expression]), (240, [Item 2 sym_template_substitution]), (241,
       [Item 2 sym_function_expression_body]), (242, [Item 2 sym_initialized_identifier]), (243,
       [Item 2 sym_function_body]), (244, [Item 1 sym_index_selector]), (245,
       [Item 2 sym__default_named_parameter]), (246, [Item 2 sym__guarded_pattern]), (247,
       [Item 1 sym_function_body]), (248, [Item 2 sym__default_formal_parameter]), (249,
       [Item 2 sym_switch_expression_case]), (250, [Item 2 sym_pattern_assignment]), (251,
       [Item 2 sym_assignment_expression]), (252, [Item 2 sym_spread_element]), (253,
       [Item 2 sym_if_element, Item 2 sym_if_statement]), (254,
       [Item 2 sym_template_substitution]), (255, [Item 1 sym_index_selector]), (256,
       [Item 2 sym_if_element]), (257, [Item 1 sym_record_field,
       Item 2 sym__record_literal_no_const]), (258, [Item 1 sym_record_field,
       Item 2 sym__record_literal_no_const]), (259, [Item 2 sym_template_substitution]), (260,
       [Item 4 sym__default_named_parameter]), (261, [Item 1 sym_throw_expression]), (262,
       [Item 2 sym_static_final_declaration]), (263, [Item 2 sym_pair]), (264,
       [Item 1 sym_throw_expression]), (265, [Item 2 sym_function_expression_body]), (266,
       [Item 3 sym_pattern_variable_declaration]), (267, [Item 2 sym_function_expression_body]),
       (268, [Item 1 sym_function_expression_body]), (269, [Item 2 sym_pattern_assignment]),
       (270, [Item 2 sym_assignment_expression]), (271, [Item 1 sym_throw_expression]), (272,
       [Item 3 sym__default_named_parameter]), (273, [Item 1 sym_throw_expression]), (274,
       [Item 2 sym_assignment_expression_without_cascade]), (275,
       [Item 1 sym__cascade_assignment_section]), (276, [Item 2 sym_conditional_expression]),
       (277, [Item 2 sym_assignment_expression_without_cascade]), (278,
       [Item 2 sym_conditional_expression]), (279, [Item 2 sym_conditional_expression]), (280,
       [Item 2 sym_assignment_expression_without_cascade]), (281,
       [Item 4 sym_conditional_expression]), (282,
       [Item 1 sym_throw_expression_without_cascade]), (283,
       [Item 2 sym_conditional_expression]), (284, [Item 1 sym__cascade_assignment_section]),
       (285, [Item 2 sym_assignment_expression_without_cascade]), (286,
       [Item 4 sym_conditional_expression]), (287,
       [Item 2 sym_assignment_expression_without_cascade]), (288,
       [Item 1 sym_throw_expression_without_cascade]), (289,
       [Item 2 sym_conditional_expression]), (290,
       [Item 1 sym_throw_expression_without_cascade]), (291,
       [Item 4 sym_conditional_expression]), (292,
       [Item 2 sym_assignment_expression_without_cascade]), (293,
       [Item 1 sym__cascade_assignment_section]), (294, [Item 2 sym_conditional_expression]),
       (295, [Item 4 sym_conditional_expression]), (296,
       [Item 1 sym__cascade_assignment_section]), (297,
       [Item 2 sym_assignment_expression_without_cascade]), (298,
       [Item 1 sym__cascade_assignment_section]), (299,
       [Item 2 sym_assignment_expression_without_cascade]), (300,
       [Item 4 sym_conditional_expression]), (301,
       [Item 1 sym_throw_expression_without_cascade])]"

definition lr_items_3 :: "(TSStateId \<times> lr_item list) list" where
  "lr_items_3 = [
     (302, [Item 1 sym_throw_expression_without_cascade]), (303,
       [Item 1 sym_throw_expression_without_cascade]), (304,
       [Item 4 sym_conditional_expression]), (305,
       [Item 1 sym_throw_expression_without_cascade]), (306,
       [Item 1 sym_throw_expression_without_cascade]), (307,
       [Item 1 sym_throw_expression_without_cascade]), (308,
       [Item 2 sym_assignment_expression_without_cascade]), (309,
       [Item 1 aux_sym_logical_and_expression_repeat1]), (310, [Item 2 sym_field_initializer]),
       (311, [Item 1 aux_sym__if_null_expression]), (312,
       [Item 1 aux_sym_bitwise_or_expression_repeat1]), (313, [Item 2 sym_equality_expression]),
       (314, [Item 1 aux_sym_bitwise_and_expression_repeat1]), (315,
       [Item 1 aux_sym_bitwise_or_expression_repeat1]), (316,
       [Item 1 aux_sym_bitwise_xor_expression_repeat1]), (317,
       [Item 2 sym_relational_expression]), (318,
       [Item 1 aux_sym_bitwise_and_expression_repeat1]), (319,
       [Item 1 aux_sym_shift_expression_repeat1]), (320, [Item 2 sym_relational_expression]),
       (321, [Item 1 aux_sym_additive_expression_repeat1]), (322,
       [Item 1 aux_sym_logical_or_expression_repeat1]), (323, [Item 2 sym_equality_expression]),
       (324, [Item 1 aux_sym_logical_and_expression_repeat1]), (325,
       [Item 1 aux_sym__if_null_expression]), (326,
       [Item 1 aux_sym_bitwise_xor_expression_repeat1]), (327,
       [Item 1 aux_sym_shift_expression_repeat1]), (328,
       [Item 1 aux_sym_additive_expression_repeat1]), (329, [Item 2 sym_relational_expression]),
       (330, [Item 1 aux_sym_logical_and_expression_repeat1]), (331,
       [Item 2 sym_equality_expression]), (332, [Item 1 aux_sym_logical_or_expression_repeat1]),
       (333, [Item 1 aux_sym__if_null_expression]), (334,
       [Item 1 aux_sym_logical_and_expression_repeat1]), (335,
       [Item 1 aux_sym_additive_expression_repeat1]), (336,
       [Item 1 aux_sym_logical_or_expression_repeat1]), (337, [Item 2 sym_equality_expression]),
       (338, [Item 1 aux_sym__if_null_expression]), (339,
       [Item 1 aux_sym_shift_expression_repeat1]), (340, [Item 1 aux_sym__if_null_expression]),
       (341, [Item 1 aux_sym_bitwise_and_expression_repeat1]), (342,
       [Item 1 aux_sym_bitwise_xor_expression_repeat1]), (343,
       [Item 1 aux_sym_shift_expression_repeat1]), (344, [Item 2 sym_equality_expression]),
       (345, [Item 1 sym__relational_pattern]), (346,
       [Item 1 aux_sym_bitwise_or_expression_repeat1]), (347,
       [Item 1 aux_sym_bitwise_xor_expression_repeat1]), (348,
       [Item 1 aux_sym_bitwise_and_expression_repeat1]), (349,
       [Item 2 sym_relational_expression]), (350,
       [Item 1 aux_sym_bitwise_xor_expression_repeat1]), (351,
       [Item 2 sym_relational_expression]), (352,
       [Item 1 aux_sym_logical_or_expression_repeat1]), (353, [Item 4 sym_field_initializer]),
       (354, [Item 1 aux_sym_logical_and_expression_repeat1]), (355,
       [Item 1 aux_sym_additive_expression_repeat1]), (356,
       [Item 1 aux_sym_shift_expression_repeat1]), (357,
       [Item 1 aux_sym_bitwise_and_expression_repeat1]), (358,
       [Item 1 aux_sym_bitwise_or_expression_repeat1]), (359,
       [Item 1 aux_sym_bitwise_and_expression_repeat1]), (360,
       [Item 1 aux_sym_bitwise_xor_expression_repeat1]), (361,
       [Item 1 aux_sym_additive_expression_repeat1]), (362, [Item 2 sym_field_initializer]),
       (363, [Item 2 sym_relational_expression]), (364,
       [Item 1 aux_sym_bitwise_or_expression_repeat1]), (365,
       [Item 1 aux_sym_logical_or_expression_repeat1]), (366,
       [Item 1 aux_sym_logical_and_expression_repeat1]), (367,
       [Item 1 aux_sym_shift_expression_repeat1]), (368,
       [Item 1 aux_sym_additive_expression_repeat1]), (369,
       [Item 1 aux_sym_logical_or_expression_repeat1]), (370, [Item 4 sym_field_initializer]),
       (371, [Item 1 aux_sym__if_null_expression]), (372, [Item 2 sym_equality_expression]),
       (373, [Item 1 aux_sym_bitwise_or_expression_repeat1]), (374, [Item 1 sym_switch_block,
       Item 3 sym_switch_expression]), (375, [Item 2 sym__pattern_field, Item 2 sym_label]),
       (376, [Item 1 sym__parenthesized_pattern, Item 1 sym_record_pattern,
       Item 1 sym_record_type]), (377, [Item 1 aux_sym_list_pattern_repeat1,
       Item 4 sym_list_pattern]), (378, [Item 2 sym_block, Item 2 sym_map_pattern,
       Item 2 sym_set_or_map_literal]), (379, [Item 2 sym_list_pattern]), (380,
       [Item 1 aux_sym_list_pattern_repeat1, Item 3 sym_list_pattern]), (381,
       [Item 1 aux_sym_list_pattern_repeat1, Item 5 sym_list_pattern]), (382, [Item 2 sym_block,
       Item 2 sym_map_pattern, Item 2 sym_set_or_map_literal]), (383,
       [Item 1 sym_list_pattern]), (384, [Item 1 aux_sym_record_pattern_repeat1,
       Item 3 sym_record_pattern]), (385, [Item 1 aux_sym_switch_expression_repeat1,
       Item 6 sym_switch_expression]), (386, [Item 1 aux_sym_switch_expression_repeat1,
       Item 5 sym_switch_expression]), (387, [Item 1 aux_sym_switch_expression_repeat1,
       Item 5 sym_switch_expression]), (388, [Item 1 aux_sym_record_pattern_repeat1,
       Item 4 sym_record_pattern]), (389, [Item 1 aux_sym_record_pattern_repeat1,
       Item 4 sym_object_pattern]), (390, [Item 1 aux_sym_switch_expression_repeat1,
       Item 6 sym_switch_expression]), (391, [Item 1 aux_sym_record_pattern_repeat1,
       Item 6 sym_object_pattern]), (392, [Item 1 aux_sym_switch_expression_repeat1,
       Item 5 sym_switch_expression]), (393, [Item 1 aux_sym_switch_expression_repeat1,
       Item 5 sym_switch_expression]), (394, [Item 1 aux_sym_list_pattern_repeat1]), (395,
       [Item 1 aux_sym_switch_expression_repeat1, Item 6 sym_switch_expression]), (396,
       [Item 1 aux_sym_record_pattern_repeat1, Item 5 sym_object_pattern]), (397,
       [Item 1 aux_sym_switch_expression_repeat1, Item 6 sym_switch_expression]), (398,
       [Item 3 sym_object_pattern]), (399, [Item 3 sym_switch_expression]), (400,
       [Item 3 sym_switch_expression]), (401, [Item 3 sym_switch_expression]), (402,
       [Item 2 sym_object_pattern]), (403, [Item 1 sym_rest_pattern]), (404,
       [Item 3 sym_switch_expression]), (405, [Item 1 aux_sym_record_pattern_repeat1]), (406,
       [Item 1 aux_sym_switch_expression_repeat1]), (407, [Item 4 sym_if_element,
       Item 4 sym_if_statement]), (408, [Item 4 sym_if_statement]), (409,
       [Item 1 sym_switch_statement_case]), (410, [Item 1 sym_await_expression,
       Item 1 sym_for_element]), (411, [Item 1 sym_await_expression, Item 1 sym_for_statement]),
       (412, [Item 4 sym_if_element]), (413, [Item 1 sym_await_expression,
       Item 1 sym_for_statement]), (414, [Item 1 sym_await_expression, Item 1 sym_for_element,
       Item 1 sym_for_statement]), (415, [Item 4 sym_if_statement]), (416,
       [Item 2 sym_switch_statement_case]), (417, [Item 1 sym_unary_expression]), (418,
       [Item 1 sym__pattern_field]), (419, [Item 1 sym_await_expression]), (420,
       [Item 1 aux_sym_multiplicative_expression_repeat1]), (421,
       [Item 1 sym_unary_expression]), (422, [Item 2 sym__map_pattern_entry]), (423,
       [Item 2 sym__pattern_field]), (424, [Item 1 aux_sym_multiplicative_expression_repeat1]),
       (425, [Item 1 aux_sym_multiplicative_expression_repeat1]), (426,
       [Item 1 sym_await_expression]), (427,
       [Item 1 aux_sym_multiplicative_expression_repeat1]), (428,
       [Item 1 sym_unary_expression]), (429, [Item 1 sym_await_expression]), (430,
       [Item 1 aux_sym_multiplicative_expression_repeat1]), (431,
       [Item 1 sym_unary_expression]), (432, [Item 1 sym_unary_expression]), (433,
       [Item 1 sym_await_expression]), (434, [Item 1 sym_await_expression]), (435,
       [Item 1 sym_program]), (436, [Item 1 aux_sym__logical_or_pattern_repeat1]), (437,
       [Item 1 aux_sym__logical_and_pattern_repeat1]), (438, [Item 1 aux_sym_program_repeat1,
       Item 1 sym_program]), (439, [Item 1 aux_sym_program_repeat1, Item 3 sym_program]), (440,
       [Item 1 aux_sym_program_repeat1, Item 2 sym_program]), (441, [Item 2 sym_program]), (442,
       [Item 1 sym_program]), (443, [Item 3 sym_block]), (444, [Item 2 sym_block]), (445,
       [Item 1 sym__semicolon]), (446, [Item 1 sym_function_body]), (447,
       [Item 3 sym_function_body]), (448, [Item 2 sym_function_body]), (449,
       [Item 4 sym_function_body]), (450, [Item 1 aux_sym_program_repeat2, Item 4 sym_program]),
       (451, [Item 1 aux_sym_program_repeat2, Item 3 sym_program])]"

definition lr_items_4 :: "(TSStateId \<times> lr_item list) list" where
  "lr_items_4 = [
     (452, [Item 1 aux_sym_program_repeat2, Item 2 sym_program]), (453,
       [Item 1 aux_sym_cascade_section_repeat1, Item 3 sym_cascade_section]), (454,
       [Item 1 aux_sym_program_repeat2, Item 1 sym_program]), (455,
       [Item 2 sym_cascade_section]), (456, [Item 1 sym_unary_expression]), (457,
       [Item 1 sym_unary_expression]), (458, [Item 1 sym_unary_expression]), (459,
       [Item 1 sym_unary_expression]), (460, [Item 1 sym_unary_expression]), (461,
       [Item 1 aux_sym_try_statement_repeat1, Item 2 sym_try_statement]), (462,
       [Item 1 aux_sym_program_repeat3, Item 2 sym_program]), (463,
       [Item 1 aux_sym_program_repeat3, Item 3 sym_program]), (464, [Item 1 sym_try_statement]),
       (465, [Item 1 aux_sym_program_repeat3, Item 5 sym_program]), (466,
       [Item 2 sym_cascade_section]), (467, [Item 1 aux_sym_cascade_section_repeat1,
       Item 3 sym_cascade_section]), (468, [Item 1 aux_sym_program_repeat3,
       Item 4 sym_program]), (469, [Item 1 aux_sym_program_repeat3, Item 1 sym_program]), (470,
       [Item 1 aux_sym_try_statement_repeat1, Item 2 aux_sym_try_statement_repeat1]), (471,
       [Item 1 aux_sym_cascade_section_repeat2, Item 3 sym_cascade_section]), (472,
       [Item 1 aux_sym_cascade_section_repeat2, Item 4 sym_cascade_section]), (473,
       [Item 1 aux_sym_string_literal_repeat1, Item 2 aux_sym_string_literal_repeat1]), (474,
       [Item 1 aux_sym_string_literal_repeat1, Item 1 sym_string_literal]), (475,
       [Item 1 aux_sym_program_repeat4, Item 1 sym_program]), (476,
       [Item 1 aux_sym_program_repeat4, Item 2 sym_program]), (477,
       [Item 1 aux_sym_program_repeat4, Item 4 sym_program]), (478,
       [Item 1 aux_sym_program_repeat4, Item 3 sym_program]), (479,
       [Item 1 aux_sym_program_repeat4, Item 2 aux_sym_program_repeat4]), (480,
       [Item 1 aux_sym_program_repeat4, Item 5 sym_program]), (481, [Item 1 sym__expression,
       Item 1 sym_additive_expression, Item 1 sym_bitwise_and_expression,
       Item 1 sym_bitwise_or_expression, Item 1 sym_bitwise_xor_expression,
       Item 1 sym_conditional_expression, Item 1 sym_equality_expression,
       Item 1 sym_if_null_expression, Item 1 sym_logical_and_expression,
       Item 1 sym_logical_or_expression, Item 1 sym_relational_expression,
       Item 1 sym_shift_expression, Item 1 sym_type_cast_expression,
       Item 1 sym_type_test_expression]), (482, [Item 1 aux_sym_program_repeat4,
       Item 6 sym_program]), (483, [Item 1 aux_sym_cascade_section_repeat2,
       Item 2 aux_sym_cascade_section_repeat2]), (484, [Item 3 sym__on_part]), (485,
       [Item 2 sym_block]), (486, [Item 2 sym__try_head]), (487,
       [Item 1 aux_sym_cascade_section_repeat2, Item 4 sym_cascade_section]), (488,
       [Item 4 sym__on_part]), (489, [Item 1 sym__primary, Item 1 sym__type_name,
       Item 1 sym_assignable_expression, Item 1 sym_function_signature]), (490,
       [Item 1 aux_sym_cascade_section_repeat2, Item 3 sym_cascade_section]), (491,
       [Item 3 sym_block]), (492, [Item 2 sym__on_part]), (493,
       [Item 1 aux_sym_try_statement_repeat1]), (494, [Item 1 sym_additive_expression,
       Item 1 sym_bitwise_and_expression, Item 1 sym_bitwise_or_expression,
       Item 1 sym_bitwise_xor_expression, Item 1 sym_conditional_expression,
       Item 1 sym_equality_expression, Item 1 sym_if_null_expression,
       Item 1 sym_logical_and_expression, Item 1 sym_logical_or_expression,
       Item 1 sym_relational_expression, Item 1 sym_shift_expression,
       Item 1 sym_type_cast_expression, Item 1 sym_type_test_expression,
       Item 2 aux_sym_additive_expression_repeat1]), (495, [Item 1 sym_additive_expression,
       Item 1 sym_bitwise_and_expression, Item 1 sym_bitwise_or_expression,
       Item 1 sym_bitwise_xor_expression, Item 1 sym_conditional_expression,
       Item 1 sym_equality_expression, Item 1 sym_if_null_expression,
       Item 1 sym_logical_and_expression, Item 1 sym_logical_or_expression,
       Item 1 sym_relational_expression, Item 1 sym_shift_expression,
       Item 1 sym_type_cast_expression, Item 1 sym_type_test_expression,
       Item 2 aux_sym_shift_expression_repeat1]), (496, [Item 1 aux_sym_cascade_section_repeat1,
       Item 2 aux_sym_cascade_section_repeat1]), (497, [Item 1 aux_sym_cascade_section_repeat1,
       Item 2 sym__cascade_subsection]), (498, [Item 1 sym_additive_expression,
       Item 1 sym_bitwise_and_expression, Item 1 sym_bitwise_or_expression,
       Item 1 sym_bitwise_xor_expression, Item 1 sym_conditional_expression,
       Item 1 sym_equality_expression, Item 1 sym_if_null_expression,
       Item 1 sym_logical_and_expression, Item 1 sym_logical_or_expression,
       Item 1 sym_relational_expression, Item 1 sym_shift_expression,
       Item 1 sym_type_cast_expression, Item 1 sym_type_test_expression,
       Item 2 aux_sym__if_null_expression]), (499, [Item 1 sym__cascade_subsection]), (500,
       [Item 1 sym_additive_expression, Item 1 sym_bitwise_and_expression,
       Item 1 sym_bitwise_or_expression, Item 1 sym_bitwise_xor_expression,
       Item 1 sym_conditional_expression, Item 1 sym_equality_expression,
       Item 1 sym_if_null_expression, Item 1 sym_logical_and_expression,
       Item 1 sym_logical_or_expression, Item 1 sym_relational_expression,
       Item 1 sym_shift_expression, Item 1 sym_type_cast_expression,
       Item 1 sym_type_test_expression, Item 2 aux_sym_bitwise_xor_expression_repeat1]), (501,
       [Item 1 sym_additive_expression, Item 1 sym_bitwise_and_expression,
       Item 1 sym_bitwise_or_expression, Item 1 sym_bitwise_xor_expression,
       Item 1 sym_equality_expression, Item 1 sym_if_null_expression,
       Item 1 sym_logical_and_expression, Item 1 sym_logical_or_expression,
       Item 1 sym_relational_expression, Item 1 sym_shift_expression,
       Item 1 sym_type_cast_expression, Item 1 sym_type_test_expression,
       Item 3 sym_equality_expression]), (502, [Item 1 sym_additive_expression,
       Item 1 sym_bitwise_and_expression, Item 1 sym_bitwise_or_expression,
       Item 1 sym_bitwise_xor_expression, Item 1 sym_conditional_expression,
       Item 1 sym_equality_expression, Item 1 sym_if_null_expression,
       Item 1 sym_logical_and_expression, Item 1 sym_logical_or_expression,
       Item 1 sym_relational_expression, Item 1 sym_shift_expression,
       Item 1 sym_type_cast_expression, Item 1 sym_type_test_expression,
       Item 2 aux_sym_bitwise_and_expression_repeat1]), (503,
       [Item 1 sym__expression_without_cascade, Item 1 sym_additive_expression,
       Item 1 sym_bitwise_and_expression, Item 1 sym_bitwise_or_expression,
       Item 1 sym_bitwise_xor_expression, Item 1 sym_conditional_expression,
       Item 1 sym_equality_expression, Item 1 sym_if_null_expression,
       Item 1 sym_logical_and_expression, Item 1 sym_logical_or_expression,
       Item 1 sym_relational_expression, Item 1 sym_shift_expression,
       Item 1 sym_type_cast_expression, Item 1 sym_type_test_expression]), (504,
       [Item 1 sym_additive_expression, Item 1 sym_bitwise_and_expression,
       Item 1 sym_bitwise_or_expression, Item 1 sym_bitwise_xor_expression,
       Item 1 sym_conditional_expression, Item 1 sym_equality_expression,
       Item 1 sym_if_null_expression, Item 1 sym_logical_and_expression,
       Item 1 sym_logical_or_expression, Item 1 sym_relational_expression,
       Item 1 sym_shift_expression, Item 1 sym_type_cast_expression,
       Item 1 sym_type_test_expression, Item 2 aux_sym_logical_or_expression_repeat1]), (505,
       [Item 1 sym_additive_expression, Item 1 sym_bitwise_and_expression,
       Item 1 sym_bitwise_or_expression, Item 1 sym_bitwise_xor_expression,
       Item 1 sym_conditional_expression, Item 1 sym_equality_expression,
       Item 1 sym_if_null_expression, Item 1 sym_logical_and_expression,
       Item 1 sym_logical_or_expression, Item 1 sym_relational_expression,
       Item 1 sym_shift_expression, Item 1 sym_type_cast_expression,
       Item 1 sym_type_test_expression, Item 2 aux_sym_bitwise_or_expression_repeat1]), (506,
       [Item 1 sym_additive_expression, Item 1 sym_bitwise_and_expression,
       Item 1 sym_bitwise_or_expression, Item 1 sym_bitwise_xor_expression,
       Item 1 sym_if_null_expression, Item 1 sym_logical_and_expression,
       Item 1 sym_logical_or_expression, Item 1 sym_relational_expression,
       Item 1 sym_shift_expression, Item 1 sym_type_cast_expression,
       Item 1 sym_type_test_expression, Item 3 sym_relational_expression]), (507,
       [Item 1 sym_additive_expression, Item 1 sym_bitwise_and_expression,
       Item 1 sym_bitwise_or_expression, Item 1 sym_bitwise_xor_expression,
       Item 1 sym_conditional_expression, Item 1 sym_equality_expression,
       Item 1 sym_if_null_expression, Item 1 sym_logical_and_expression,
       Item 1 sym_logical_or_expression, Item 1 sym_relational_expression,
       Item 1 sym_shift_expression, Item 1 sym_type_cast_expression,
       Item 1 sym_type_test_expression, Item 2 aux_sym_logical_and_expression_repeat1]), (508,
       [Item 1 sym__expression, Item 1 sym_additive_expression,
       Item 1 sym_bitwise_and_expression, Item 1 sym_bitwise_or_expression,
       Item 1 sym_bitwise_xor_expression, Item 1 sym_conditional_expression,
       Item 1 sym_equality_expression, Item 1 sym_if_null_expression,
       Item 1 sym_logical_and_expression, Item 1 sym_logical_or_expression,
       Item 1 sym_relational_expression, Item 1 sym_shift_expression,
       Item 1 sym_type_cast_expression, Item 1 sym_type_test_expression]), (509,
       [Item 1 aux_sym_cascade_section_repeat2, Item 2 aux_sym_cascade_section_repeat2]), (510,
       [Item 1 sym__expression, Item 1 sym_additive_expression,
       Item 1 sym_bitwise_and_expression, Item 1 sym_bitwise_or_expression,
       Item 1 sym_bitwise_xor_expression, Item 1 sym_conditional_expression,
       Item 1 sym_equality_expression, Item 1 sym_if_null_expression,
       Item 1 sym_logical_and_expression, Item 1 sym_logical_or_expression,
       Item 1 sym_relational_expression, Item 1 sym_shift_expression,
       Item 1 sym_type_cast_expression, Item 1 sym_type_test_expression]), (511,
       [Item 2 sym_local_variable_declaration]), (512, [Item 3 sym_local_variable_declaration]),
       (513, [Item 1 sym__function_formal_parameter, Item 1 sym__pattern_field,
       Item 1 sym__primary, Item 1 sym__simple_formal_parameter, Item 1 sym__type_name,
       Item 1 sym_assignable_expression, Item 1 sym_constant_pattern, Item 1 sym_label]), (514,
       [Item 1 sym__function_formal_parameter, Item 1 sym__pattern_field, Item 1 sym__primary,
       Item 1 sym__simple_formal_parameter, Item 1 sym__type_name,
       Item 1 sym_assignable_expression, Item 1 sym_constant_pattern, Item 1 sym_label]), (515,
       [Item 1 sym__function_formal_parameter, Item 1 sym__primary,
       Item 1 sym__simple_formal_parameter, Item 1 sym__type_name,
       Item 1 sym_assignable_expression, Item 1 sym_constant_pattern]), (516,
       [Item 1 sym__function_formal_parameter, Item 1 sym__primary,
       Item 1 sym__simple_formal_parameter, Item 1 sym__type_name,
       Item 1 sym_assignable_expression]), (517, [Item 1 sym__function_formal_parameter,
       Item 1 sym__primary, Item 1 sym__simple_formal_parameter, Item 1 sym__type_name,
       Item 1 sym_assignable_expression, Item 1 sym_label]), (518,
       [Item 3 sym_return_statement]), (519, [Item 2 sym_expression_statement]), (520,
       [Item 9 sym_if_statement]), (521, [Item 1 sym__primary, Item 1 sym__type_name,
       Item 1 sym_assignable_expression]), (522, [Item 3 sym_continue_statement]), (523,
       [Item 3 sym_while_statement]), (524, [Item 3 sym_switch_statement]), (525,
       [Item 3 sym_switch_block]), (526, [Item 2 sym_break_statement]), (527,
       [Item 1 sym__statement]), (528, [Item 2 sym_finally_clause]), (529,
       [Item 3 sym_try_statement]), (530, [Item 3 sym_yield_statement]), (531,
       [Item 7 sym_if_statement]), (532, [Item 1 sym__primary, Item 1 sym__type_name,
       Item 1 sym_assignable_expression]), (533, [Item 1 sym__statement]), (534,
       [Item 1 sym_local_function_declaration]), (535, [Item 2 sym_assert_statement]), (536,
       [Item 2 sym_return_statement]), (537, [Item 4 sym_for_statement]), (538,
       [Item 2 sym_lambda_expression]), (539, [Item 3 sym_for_statement]), (540,
       [Item 2 sym_switch_block]), (541, [Item 3 sym_break_statement]), (542,
       [Item 1 sym__statement]), (543, [Item 4 sym_switch_block]), (544,
       [Item 2 sym_continue_statement]), (545, [Item 7 sym_if_statement]), (546,
       [Item 2 sym_local_function_declaration]), (547, [Item 5 sym_if_statement]), (548,
       [Item 2 sym_try_statement]), (549, [Item 4 sym_yield_each_statement]), (550,
       [Item 1 sym__top_level_definition, Item 1 sym_class_definition,
       Item 1 sym_enum_declaration, Item 1 sym_extension_declaration, Item 1 sym_library_export,
       Item 1 sym_library_import, Item 1 sym_library_name, Item 1 sym_mixin_declaration,
       Item 1 sym_part_directive, Item 1 sym_part_of_directive, Item 1 sym_type_alias]), (551,
       [Item 5 sym_do_statement]), (552, [Item 1 sym_unconditional_assignable_selector]), (553,
       [Item 1 sym_additive_expression, Item 1 sym_bitwise_and_expression,
       Item 1 sym_bitwise_or_expression, Item 1 sym_bitwise_xor_expression,
       Item 1 sym_conditional_expression, Item 1 sym_equality_expression,
       Item 1 sym_if_null_expression, Item 1 sym_logical_and_expression,
       Item 1 sym_logical_or_expression, Item 1 sym_relational_expression,
       Item 1 sym_shift_expression, Item 1 sym_type_cast_expression,
       Item 1 sym_type_test_expression, Item 2 aux_sym_shift_expression_repeat1]), (554,
       [Item 1 sym__expression_without_cascade, Item 1 sym_additive_expression,
       Item 1 sym_bitwise_and_expression, Item 1 sym_bitwise_or_expression,
       Item 1 sym_bitwise_xor_expression, Item 1 sym_conditional_expression,
       Item 1 sym_equality_expression, Item 1 sym_if_null_expression,
       Item 1 sym_logical_and_expression, Item 1 sym_logical_or_expression,
       Item 1 sym_relational_expression, Item 1 sym_shift_expression,
       Item 1 sym_type_cast_expression, Item 1 sym_type_test_expression]), (555,
       [Item 1 sym_additive_expression, Item 1 sym_bitwise_and_expression,
       Item 1 sym_bitwise_or_expression, Item 1 sym_bitwise_xor_expression,
       Item 1 sym_equality_expression, Item 1 sym_if_null_expression,
       Item 1 sym_logical_and_expression, Item 1 sym_logical_or_expression,
       Item 1 sym_relational_expression, Item 1 sym_shift_expression,
       Item 1 sym_type_cast_expression, Item 1 sym_type_test_expression,
       Item 3 sym_equality_expression]), (556, [Item 1 aux_sym_block_repeat1]), (557,
       [Item 1 sym_additive_expression, Item 1 sym_bitwise_and_expression,
       Item 1 sym_bitwise_or_expression, Item 1 sym_bitwise_xor_expression,
       Item 1 sym_conditional_expression, Item 1 sym_equality_expression,
       Item 1 sym_if_null_expression, Item 1 sym_logical_and_expression,
       Item 1 sym_logical_or_expression, Item 1 sym_relational_expression,
       Item 1 sym_shift_expression, Item 1 sym_type_cast_expression,
       Item 1 sym_type_test_expression, Item 2 aux_sym_logical_or_expression_repeat1]), (558,
       [Item 1 sym_additive_expression, Item 1 sym_bitwise_and_expression,
       Item 1 sym_bitwise_or_expression, Item 1 sym_bitwise_xor_expression,
       Item 1 sym_conditional_expression, Item 1 sym_equality_expression,
       Item 1 sym_if_null_expression, Item 1 sym_logical_and_expression,
       Item 1 sym_logical_or_expression, Item 1 sym_relational_expression,
       Item 1 sym_shift_expression, Item 1 sym_type_cast_expression,
       Item 1 sym_type_test_expression, Item 2 aux_sym_bitwise_or_expression_repeat1]), (559,
       [Item 1 sym_additive_expression, Item 1 sym_bitwise_and_expression,
       Item 1 sym_bitwise_or_expression, Item 1 sym_bitwise_xor_expression,
       Item 1 sym_conditional_expression, Item 1 sym_equality_expression,
       Item 1 sym_if_null_expression, Item 1 sym_logical_and_expression,
       Item 1 sym_logical_or_expression, Item 1 sym_relational_expression,
       Item 1 sym_shift_expression, Item 1 sym_type_cast_expression,
       Item 1 sym_type_test_expression, Item 2 aux_sym_logical_and_expression_repeat1]), (560,
       [Item 1 sym__top_level_definition, Item 1 sym_class_definition,
       Item 1 sym_enum_declaration, Item 1 sym_extension_declaration, Item 1 sym_library_export,
       Item 1 sym_library_import, Item 1 sym_mixin_declaration, Item 1 sym_part_directive,
       Item 1 sym_part_of_directive, Item 1 sym_type_alias]), (561,
       [Item 1 sym__cascade_subsection]), (562, [Item 1 sym_additive_expression,
       Item 1 sym_bitwise_and_expression, Item 1 sym_bitwise_or_expression,
       Item 1 sym_bitwise_xor_expression, Item 1 sym_conditional_expression,
       Item 1 sym_equality_expression, Item 1 sym_if_null_expression,
       Item 1 sym_logical_and_expression, Item 1 sym_logical_or_expression,
       Item 1 sym_relational_expression, Item 1 sym_shift_expression,
       Item 1 sym_type_cast_expression, Item 1 sym_type_test_expression,
       Item 2 aux_sym_bitwise_xor_expression_repeat1]), (563,
       [Item 2 sym_conditional_assignable_selector]), (564, [Item 1 sym_additive_expression,
       Item 1 sym_bitwise_and_expression, Item 1 sym_bitwise_or_expression,
       Item 1 sym_bitwise_xor_expression, Item 1 sym_conditional_expression,
       Item 1 sym_equality_expression, Item 1 sym_if_null_expression,
       Item 1 sym_logical_and_expression, Item 1 sym_logical_or_expression,
       Item 1 sym_relational_expression, Item 1 sym_shift_expression,
       Item 1 sym_type_cast_expression, Item 1 sym_type_test_expression,
       Item 2 aux_sym__if_null_expression]), (565,
       [Item 2 sym_unconditional_assignable_selector]), (566,
       [Item 1 aux_sym_cascade_section_repeat1, Item 2 aux_sym_cascade_section_repeat1]), (567,
       [Item 1 sym__assignable_selector]), (568, [Item 2 sym__primary,
       Item 2 sym_assignable_expression]), (569, [Item 1 sym_additive_expression,
       Item 1 sym_bitwise_and_expression, Item 1 sym_bitwise_or_expression,
       Item 1 sym_bitwise_xor_expression, Item 1 sym_conditional_expression,
       Item 1 sym_equality_expression, Item 1 sym_if_null_expression,
       Item 1 sym_logical_and_expression, Item 1 sym_logical_or_expression,
       Item 1 sym_relational_expression, Item 1 sym_shift_expression,
       Item 1 sym_type_cast_expression, Item 1 sym_type_test_expression,
       Item 2 aux_sym_bitwise_and_expression_repeat1]), (570,
       [Item 1 sym__assignable_selector_part, Item 1 sym_selector]), (571,
       [Item 3 sym_parenthesized_expression]), (572, [Item 1 sym_additive_expression,
       Item 1 sym_bitwise_and_expression, Item 1 sym_bitwise_or_expression,
       Item 1 sym_bitwise_xor_expression, Item 1 sym_if_null_expression,
       Item 1 sym_logical_and_expression, Item 1 sym_logical_or_expression,
       Item 1 sym_relational_expression, Item 1 sym_shift_expression,
       Item 1 sym_type_cast_expression, Item 1 sym_type_test_expression,
       Item 3 sym_relational_expression]), (573, [Item 1 aux_sym_cascade_section_repeat1,
       Item 2 sym__cascade_subsection]), (574, [Item 1 sym_additive_expression,
       Item 1 sym_bitwise_and_expression, Item 1 sym_bitwise_or_expression,
       Item 1 sym_bitwise_xor_expression, Item 1 sym_conditional_expression,
       Item 1 sym_equality_expression, Item 1 sym_if_null_expression,
       Item 1 sym_logical_and_expression, Item 1 sym_logical_or_expression,
       Item 1 sym_relational_expression, Item 1 sym_shift_expression,
       Item 1 sym_type_cast_expression, Item 1 sym_type_test_expression,
       Item 2 aux_sym_additive_expression_repeat1]), (575, [Item 3 sym_index_selector]), (576,
       [Item 1 sym_selector, Item 2 sym__assignable_selector_part]), (577,
       [Item 1 sym_class_body]), (578, [Item 3 sym_index_selector]), (579,
       [Item 1 aux_sym_cascade_section_repeat1]), (580,
       [Item 1 aux_sym_cascade_section_repeat2]), (581,
       [Item 1 sym_unconditional_assignable_selector]), (582, [Item 2 sym_cascade_selector]),
       (583, [Item 1 sym_argument_part]), (584, [Item 2 sym_conditional_assignable_selector]),
       (585, [Item 2 sym_argument_part]), (586, [Item 1 aux_sym_enum_body_repeat2,
       Item 6 sym_enum_body]), (587, [Item 1 sym_cascade_selector]), (588,
       [Item 1 aux_sym_enum_body_repeat2, Item 4 sym_enum_body]), (589,
       [Item 1 aux_sym_extension_body_repeat1, Item 2 aux_sym_extension_body_repeat1]), (590,
       [Item 4 sym_enum_body]), (591, [Item 2 sym_unconditional_assignable_selector]), (592,
       [Item 1 aux_sym_string_literal_repeat1, Item 2 aux_sym_string_literal_repeat1]), (593,
       [Item 1 sym_extension_body]), (594, [Item 2 sym_arguments]), (595,
       [Item 1 aux_sym_string_literal_repeat1, Item 1 sym_string_literal]), (596,
       [Item 1 aux_sym_enum_body_repeat2, Item 2 sym_class_body]), (597,
       [Item 1 aux_sym_enum_body_repeat2, Item 2 aux_sym_enum_body_repeat2]), (598,
       [Item 1 aux_sym_extension_body_repeat1, Item 2 sym_extension_body]), (599,
       [Item 1 aux_sym_enum_body_repeat2, Item 5 sym_enum_body]), (600, [Item 3 sym_arguments]),
       (601, [Item 3 sym_enum_body])]"

definition lr_items_5 :: "(TSStateId \<times> lr_item list) list" where
  "lr_items_5 = [
     (602, [Item 1 sym__assignable_selector]), (603, [Item 5 sym_enum_body]), (604,
       [Item 1 sym__primary, Item 1 sym__type_name, Item 1 sym_assignable_expression]), (605,
       [Item 1 sym__primary, Item 1 sym__type_name, Item 1 sym_assignable_expression]), (606,
       [Item 3 sym_for_loop_parts]), (607, [Item 1 sym_unconditional_assignable_selector]),
       (608, [Item 2 sym__string_literal_double_quotes_multiple]), (609,
       [Item 1 aux_sym_string_literal_repeat1, Item 1 sym_string_literal]), (610,
       [Item 1 aux_sym_string_literal_repeat1, Item 2 aux_sym_string_literal_repeat1]), (611,
       [Item 3 sym_index_selector]), (612, [Item 2 sym_unconditional_assignable_selector]),
       (613, [Item 3 sym__raw_string_literal_single_quotes_multiple]), (614,
       [Item 2 sym_conditional_assignable_selector]), (615,
       [Item 2 sym__raw_string_literal_single_quotes_multiple]), (616,
       [Item 2 sym__raw_string_literal_double_quotes_multiple]), (617,
       [Item 2 sym__raw_string_literal_single_quotes]), (618,
       [Item 2 sym_unconditional_assignable_selector, Item 3 sym_super_formal_parameter]), (619,
       [Item 2 sym__raw_string_literal_double_quotes]), (620, [Item 2 sym__primary,
       Item 2 sym_assignable_expression]), (621, [Item 1 sym_selector,
       Item 2 sym__assignable_selector_part]), (622, [Item 1 sym__assignable_selector]), (623,
       [Item 1 sym__assignable_selector_part, Item 1 sym_selector]), (624,
       [Item 2 sym__string_literal_single_quotes_multiple]), (625,
       [Item 3 sym__string_literal_double_quotes]), (626,
       [Item 2 sym__string_literal_single_quotes]), (627,
       [Item 1 aux_sym_string_literal_repeat1]), (628,
       [Item 3 sym__string_literal_single_quotes]), (629,
       [Item 2 sym_unconditional_assignable_selector, Item 3 sym_super_formal_parameter]), (630,
       [Item 1 sym__primary, Item 1 sym__type_name, Item 1 sym_assignable_expression,
       Item 1 sym_constant_pattern]), (631,
       [Item 3 sym__string_literal_double_quotes_multiple]), (632,
       [Item 3 sym__string_literal_single_quotes_multiple]), (633,
       [Item 2 sym__string_literal_double_quotes]), (634,
       [Item 3 sym__raw_string_literal_double_quotes]), (635,
       [Item 3 sym__raw_string_literal_double_quotes_multiple]), (636,
       [Item 3 sym__raw_string_literal_single_quotes]), (637, [Item 2 sym_cascade_selector]),
       (638, [Item 2 sym_conditional_assignable_selector]), (639,
       [Item 1 sym_cascade_selector]), (640, [Item 1 sym__primary, Item 1 sym__type_name,
       Item 1 sym_assignable_expression]), (641, [Item 1 sym__assignable_selector]), (642,
       [Item 1 sym__primary, Item 1 sym__type_name, Item 1 sym_assignable_expression,
       Item 1 sym_label]), (643, [Item 1 sym_assignable_expression,
       Item 1 sym_postfix_expression]), (644, [Item 2 sym_arguments]), (645,
       [Item 1 sym__primary, Item 1 sym__type_name, Item 1 sym_assignable_expression,
       Item 1 sym_label]), (646, [Item 2 sym_unconditional_assignable_selector]), (647,
       [Item 2 sym_argument_part]), (648, [Item 1 sym__postfix_expression,
       Item 1 sym_assignable_expression]), (649,
       [Item 1 sym_unconditional_assignable_selector]), (650,
       [Item 1 aux_sym_cascade_section_repeat1]), (651, [Item 3 sym_index_selector]), (652,
       [Item 1 aux_sym_cascade_section_repeat2]), (653, [Item 1 sym_argument_part]), (654,
       [Item 1 sym_assignable_expression, Item 1 sym_postfix_expression]), (655,
       [Item 1 sym__for_loop_parts, Item 1 sym__primary, Item 1 sym__type_name,
       Item 1 sym_assignable_expression]), (656, [Item 2 sym_unconditional_assignable_selector,
       Item 3 sym_super_formal_parameter]), (657, [Item 3 sym_arguments]), (658,
       [Item 1 sym__primary, Item 1 sym__type_name, Item 1 sym_assignable_expression]), (659,
       [Item 1 sym__postfix_expression, Item 1 sym_assignable_expression]), (660,
       [Item 1 sym__expression, Item 1 sym_additive_expression,
       Item 1 sym_bitwise_and_expression, Item 1 sym_bitwise_or_expression,
       Item 1 sym_bitwise_xor_expression, Item 1 sym_conditional_expression,
       Item 1 sym_equality_expression, Item 1 sym_if_null_expression,
       Item 1 sym_logical_and_expression, Item 1 sym_logical_or_expression,
       Item 1 sym_relational_expression, Item 1 sym_shift_expression,
       Item 1 sym_type_cast_expression, Item 1 sym_type_test_expression]), (661,
       [Item 1 sym__assignable_selector]), (662, [Item 2 sym__primary,
       Item 2 sym_assignable_expression]), (663,
       [Item 1 aux_sym__assignable_selector_part_repeat1,
       Item 2 aux_sym__assignable_selector_part_repeat1]), (664,
       [Item 1 aux_sym__assignable_selector_part_repeat1, Item 1 sym__assignable_selector_part,
       Item 2 sym__postfix_expression]), (665, [Item 2 sym_unconditional_assignable_selector]),
       (666, [Item 2 sym_conditional_assignable_selector]), (667,
       [Item 1 sym__top_level_definition, Item 1 sym_class_definition,
       Item 1 sym_enum_declaration, Item 1 sym_extension_declaration,
       Item 1 sym_mixin_declaration, Item 1 sym_part_directive, Item 1 sym_part_of_directive,
       Item 1 sym_type_alias]), (668, [Item 1 sym__postfix_expression,
       Item 1 sym_assignable_expression]), (669,
       [Item 1 aux_sym__assignable_selector_part_repeat1, Item 1 sym__assignable_selector_part,
       Item 2 sym_postfix_expression]), (670, [Item 1 aux_sym__assignable_selector_part_repeat1,
       Item 1 sym__assignable_selector_part, Item 2 sym_postfix_expression]), (671,
       [Item 3 sym_index_selector]), (672, [Item 1 aux_sym__assignable_selector_part_repeat1,
       Item 1 sym__assignable_selector_part, Item 2 sym__postfix_expression]), (673,
       [Item 1 sym_selector, Item 2 sym__assignable_selector_part]), (674,
       [Item 1 sym__postfix_expression, Item 1 sym_assignable_expression]), (675,
       [Item 1 sym__assignable_selector_part, Item 1 sym_selector]), (676,
       [Item 1 sym_unconditional_assignable_selector]), (677, [Item 1 sym_relational_operator,
       Item 1 sym_type_arguments, Item 1 sym_type_parameters]), (678, [Item 1 sym__primary,
       Item 1 sym__type_name, Item 1 sym_assignable_expression]), (679,
       [Item 1 aux_sym__assignable_selector_part_repeat1, Item 1 sym__assignable_selector_part,
       Item 2 sym__postfix_expression]), (680, [Item 1 sym__top_level_definition,
       Item 1 sym_class_definition, Item 1 sym_enum_declaration,
       Item 1 sym_extension_declaration, Item 1 sym_mixin_declaration,
       Item 1 sym_part_of_directive, Item 1 sym_type_alias]), (681, [Item 1 sym__primary,
       Item 1 sym__type_name, Item 1 sym_assignable_expression, Item 1 sym_label]), (682,
       [Item 1 aux_sym__assignable_selector_part_repeat1, Item 1 sym__assignable_selector_part,
       Item 2 sym__postfix_expression]), (683, [Item 1 sym__expression_without_cascade,
       Item 1 sym_additive_expression, Item 1 sym_bitwise_and_expression,
       Item 1 sym_bitwise_or_expression, Item 1 sym_bitwise_xor_expression,
       Item 1 sym_conditional_expression, Item 1 sym_equality_expression,
       Item 1 sym_if_null_expression, Item 1 sym_logical_and_expression,
       Item 1 sym_logical_or_expression, Item 1 sym_relational_expression,
       Item 1 sym_shift_expression, Item 1 sym_type_cast_expression,
       Item 1 sym_type_test_expression]), (684, [Item 1 sym__postfix_expression,
       Item 1 sym_assignable_expression]), (685, [Item 1 aux_sym_extension_body_repeat1]), (686,
       [Item 1 sym_additive_expression, Item 1 sym_bitwise_and_expression,
       Item 1 sym_bitwise_or_expression, Item 1 sym_bitwise_xor_expression,
       Item 1 sym_conditional_expression, Item 1 sym_equality_expression,
       Item 1 sym_if_null_expression, Item 1 sym_logical_and_expression,
       Item 1 sym_logical_or_expression, Item 1 sym_relational_expression,
       Item 1 sym_shift_expression, Item 1 sym_type_cast_expression,
       Item 1 sym_type_test_expression, Item 2 aux_sym_bitwise_and_expression_repeat1]), (687,
       [Item 1 sym__top_level_definition, Item 1 sym_class_definition,
       Item 1 sym_enum_declaration, Item 1 sym_extension_declaration,
       Item 1 sym_mixin_declaration, Item 1 sym_type_alias]), (688,
       [Item 1 sym_additive_expression, Item 1 sym_bitwise_and_expression,
       Item 1 sym_bitwise_or_expression, Item 1 sym_bitwise_xor_expression,
       Item 1 sym_conditional_expression, Item 1 sym_equality_expression,
       Item 1 sym_if_null_expression, Item 1 sym_logical_and_expression,
       Item 1 sym_logical_or_expression, Item 1 sym_relational_expression,
       Item 1 sym_shift_expression, Item 1 sym_type_cast_expression,
       Item 1 sym_type_test_expression, Item 2 aux_sym_bitwise_xor_expression_repeat1]), (689,
       [Item 1 sym_additive_expression, Item 1 sym_bitwise_and_expression,
       Item 1 sym_bitwise_or_expression, Item 1 sym_bitwise_xor_expression,
       Item 1 sym_conditional_expression, Item 1 sym_equality_expression,
       Item 1 sym_if_null_expression, Item 1 sym_logical_and_expression,
       Item 1 sym_logical_or_expression, Item 1 sym_relational_expression,
       Item 1 sym_shift_expression, Item 1 sym_type_cast_expression,
       Item 1 sym_type_test_expression, Item 2 aux_sym__if_null_expression]), (690,
       [Item 1 sym__postfix_expression, Item 1 sym_assignable_expression]), (691,
       [Item 1 sym_assignable_expression, Item 1 sym_postfix_expression]), (692,
       [Item 1 sym_additive_expression, Item 1 sym_bitwise_and_expression,
       Item 1 sym_bitwise_or_expression, Item 1 sym_bitwise_xor_expression,
       Item 1 sym_conditional_expression, Item 1 sym_equality_expression,
       Item 1 sym_if_null_expression, Item 1 sym_logical_and_expression,
       Item 1 sym_logical_or_expression, Item 1 sym_relational_expression,
       Item 1 sym_shift_expression, Item 1 sym_type_cast_expression,
       Item 1 sym_type_test_expression, Item 2 aux_sym_additive_expression_repeat1]), (693,
       [Item 1 sym_additive_expression, Item 1 sym_bitwise_and_expression,
       Item 1 sym_bitwise_or_expression, Item 1 sym_bitwise_xor_expression,
       Item 1 sym_conditional_expression, Item 1 sym_equality_expression,
       Item 1 sym_if_null_expression, Item 1 sym_logical_and_expression,
       Item 1 sym_logical_or_expression, Item 1 sym_relational_expression,
       Item 1 sym_shift_expression, Item 1 sym_type_cast_expression,
       Item 1 sym_type_test_expression, Item 5 sym_field_initializer]), (694,
       [Item 1 sym_additive_expression, Item 1 sym_bitwise_and_expression,
       Item 1 sym_bitwise_or_expression, Item 1 sym_bitwise_xor_expression,
       Item 1 sym_conditional_expression, Item 1 sym_equality_expression,
       Item 1 sym_if_null_expression, Item 1 sym_logical_and_expression,
       Item 1 sym_logical_or_expression, Item 1 sym_relational_expression,
       Item 1 sym_shift_expression, Item 1 sym_type_cast_expression,
       Item 1 sym_type_test_expression, Item 2 aux_sym_shift_expression_repeat1]), (695,
       [Item 1 sym_additive_expression, Item 1 sym_bitwise_and_expression,
       Item 1 sym_bitwise_or_expression, Item 1 sym_bitwise_xor_expression,
       Item 1 sym_conditional_expression, Item 1 sym_equality_expression,
       Item 1 sym_if_null_expression, Item 1 sym_logical_and_expression,
       Item 1 sym_logical_or_expression, Item 1 sym_relational_expression,
       Item 1 sym_shift_expression, Item 1 sym_type_cast_expression,
       Item 1 sym_type_test_expression, Item 2 aux_sym_logical_or_expression_repeat1]), (696,
       [Item 1 aux_sym_enum_body_repeat2]), (697, [Item 1 sym_additive_expression,
       Item 1 sym_bitwise_and_expression, Item 1 sym_bitwise_or_expression,
       Item 1 sym_bitwise_xor_expression, Item 1 sym_if_null_expression,
       Item 1 sym_logical_and_expression, Item 1 sym_logical_or_expression,
       Item 1 sym_relational_expression, Item 1 sym_shift_expression,
       Item 1 sym_type_cast_expression, Item 1 sym_type_test_expression,
       Item 3 sym_relational_expression]), (698, [Item 1 sym_additive_expression,
       Item 1 sym_bitwise_and_expression, Item 1 sym_bitwise_or_expression,
       Item 1 sym_bitwise_xor_expression, Item 1 sym_conditional_expression,
       Item 1 sym_equality_expression, Item 1 sym_if_null_expression,
       Item 1 sym_logical_and_expression, Item 1 sym_logical_or_expression,
       Item 1 sym_relational_expression, Item 1 sym_shift_expression,
       Item 1 sym_type_cast_expression, Item 1 sym_type_test_expression,
       Item 2 aux_sym_bitwise_or_expression_repeat1]), (699, [Item 1 sym_assignable_expression,
       Item 1 sym_postfix_expression]), (700, [Item 1 sym_additive_expression,
       Item 1 sym_bitwise_and_expression, Item 1 sym_bitwise_or_expression,
       Item 1 sym_bitwise_xor_expression, Item 1 sym_conditional_expression,
       Item 1 sym_equality_expression, Item 1 sym_if_null_expression,
       Item 1 sym_logical_and_expression, Item 1 sym_logical_or_expression,
       Item 1 sym_relational_expression, Item 1 sym_shift_expression,
       Item 1 sym_type_cast_expression, Item 1 sym_type_test_expression,
       Item 2 aux_sym_logical_and_expression_repeat1]), (701, [Item 1 sym__postfix_expression,
       Item 1 sym_assignable_expression]), (702, [Item 1 sym_additive_expression,
       Item 1 sym_bitwise_and_expression, Item 1 sym_bitwise_or_expression,
       Item 1 sym_bitwise_xor_expression, Item 1 sym_conditional_expression,
       Item 1 sym_equality_expression, Item 1 sym_if_null_expression,
       Item 1 sym_logical_and_expression, Item 1 sym_logical_or_expression,
       Item 1 sym_relational_expression, Item 1 sym_shift_expression,
       Item 1 sym_type_cast_expression, Item 1 sym_type_test_expression,
       Item 3 sym_field_initializer]), (703, [Item 1 sym__postfix_expression,
       Item 1 sym_assignable_expression]), (704, [Item 1 sym_additive_expression,
       Item 1 sym_bitwise_and_expression, Item 1 sym_bitwise_or_expression,
       Item 1 sym_bitwise_xor_expression, Item 1 sym_equality_expression,
       Item 1 sym_if_null_expression, Item 1 sym_logical_and_expression,
       Item 1 sym_logical_or_expression, Item 1 sym_relational_expression,
       Item 1 sym_shift_expression, Item 1 sym_type_cast_expression,
       Item 1 sym_type_test_expression, Item 3 sym_equality_expression]), (705,
       [Item 1 aux_sym__assignable_selector_part_repeat1, Item 1 sym__assignable_selector_part,
       Item 2 sym__postfix_expression]), (706,
       [Item 1 aux_sym__assignable_selector_part_repeat1, Item 1 sym__assignable_selector_part,
       Item 2 sym_postfix_expression]), (707, [Item 1 aux_sym__assignable_selector_part_repeat1,
       Item 1 sym__assignable_selector_part, Item 2 sym_postfix_expression]), (708,
       [Item 1 aux_sym__assignable_selector_part_repeat1, Item 1 sym__assignable_selector_part,
       Item 2 sym__postfix_expression]), (709, [Item 1 sym__strict_formal_parameter_list]),
       (710, [Item 1 aux_sym__assignable_selector_part_repeat1,
       Item 2 aux_sym__assignable_selector_part_repeat1]), (711,
       [Item 1 aux_sym__assignable_selector_part_repeat1, Item 1 sym__assignable_selector_part,
       Item 2 sym__postfix_expression]), (712,
       [Item 1 aux_sym__assignable_selector_part_repeat1, Item 1 sym__assignable_selector_part,
       Item 2 sym__postfix_expression]), (713, [Item 1 sym_additive_expression,
       Item 1 sym_bitwise_and_expression, Item 1 sym_bitwise_or_expression,
       Item 1 sym_bitwise_xor_expression, Item 1 sym_conditional_expression,
       Item 1 sym_equality_expression, Item 1 sym_if_null_expression,
       Item 1 sym_logical_and_expression, Item 1 sym_logical_or_expression,
       Item 1 sym_relational_expression, Item 1 sym_shift_expression,
       Item 1 sym_type_cast_expression, Item 1 sym_type_test_expression,
       Item 2 aux_sym_bitwise_and_expression_repeat1]), (714, [Item 1 sym_additive_expression,
       Item 1 sym_bitwise_and_expression, Item 1 sym_bitwise_or_expression,
       Item 1 sym_bitwise_xor_expression, Item 1 sym_if_null_expression,
       Item 1 sym_logical_and_expression, Item 1 sym_logical_or_expression,
       Item 1 sym_relational_expression, Item 1 sym_shift_expression,
       Item 1 sym_type_cast_expression, Item 1 sym_type_test_expression,
       Item 3 sym_relational_expression]), (715, [Item 1 sym_additive_expression,
       Item 1 sym_bitwise_and_expression, Item 1 sym_bitwise_or_expression,
       Item 1 sym_bitwise_xor_expression, Item 1 sym_conditional_expression,
       Item 1 sym_equality_expression, Item 1 sym_if_null_expression,
       Item 1 sym_logical_and_expression, Item 1 sym_logical_or_expression,
       Item 1 sym_relational_expression, Item 1 sym_shift_expression,
       Item 1 sym_type_cast_expression, Item 1 sym_type_test_expression,
       Item 2 aux_sym_shift_expression_repeat1]), (716, [Item 1 sym__postfix_expression,
       Item 1 sym_assignable_expression]), (717, [Item 1 sym_assignable_expression,
       Item 1 sym_postfix_expression]), (718, [Item 1 sym_additive_expression,
       Item 1 sym_bitwise_and_expression, Item 1 sym_bitwise_or_expression,
       Item 1 sym_bitwise_xor_expression, Item 1 sym_conditional_expression,
       Item 1 sym_equality_expression, Item 1 sym_if_null_expression,
       Item 1 sym_logical_and_expression, Item 1 sym_logical_or_expression,
       Item 1 sym_relational_expression, Item 1 sym_shift_expression,
       Item 1 sym_type_cast_expression, Item 1 sym_type_test_expression,
       Item 2 aux_sym_bitwise_or_expression_repeat1]), (719, [Item 1 sym__postfix_expression,
       Item 1 sym_assignable_expression]), (720, [Item 1 sym_additive_expression,
       Item 1 sym_bitwise_and_expression, Item 1 sym_bitwise_or_expression,
       Item 1 sym_bitwise_xor_expression, Item 1 sym_conditional_expression,
       Item 1 sym_equality_expression, Item 1 sym_if_null_expression,
       Item 1 sym_logical_and_expression, Item 1 sym_logical_or_expression,
       Item 1 sym_relational_expression, Item 1 sym_shift_expression,
       Item 1 sym_type_cast_expression, Item 1 sym_type_test_expression,
       Item 2 aux_sym_additive_expression_repeat1]), (721, [Item 1 sym_additive_expression,
       Item 1 sym_bitwise_and_expression, Item 1 sym_bitwise_or_expression,
       Item 1 sym_bitwise_xor_expression, Item 1 sym_equality_expression,
       Item 1 sym_if_null_expression, Item 1 sym_logical_and_expression,
       Item 1 sym_logical_or_expression, Item 1 sym_relational_expression,
       Item 1 sym_shift_expression, Item 1 sym_type_cast_expression,
       Item 1 sym_type_test_expression, Item 3 sym_equality_expression]), (722,
       [Item 1 sym__expression, Item 1 sym_additive_expression,
       Item 1 sym_bitwise_and_expression, Item 1 sym_bitwise_or_expression,
       Item 1 sym_bitwise_xor_expression, Item 1 sym_conditional_expression,
       Item 1 sym_equality_expression, Item 1 sym_if_null_expression,
       Item 1 sym_logical_and_expression, Item 1 sym_logical_or_expression,
       Item 1 sym_relational_expression, Item 1 sym_shift_expression,
       Item 1 sym_type_cast_expression, Item 1 sym_type_test_expression]), (723,
       [Item 1 sym_additive_expression, Item 1 sym_bitwise_and_expression,
       Item 1 sym_bitwise_or_expression, Item 1 sym_bitwise_xor_expression,
       Item 1 sym_conditional_expression, Item 1 sym_equality_expression,
       Item 1 sym_if_null_expression, Item 1 sym_logical_and_expression,
       Item 1 sym_logical_or_expression, Item 1 sym_relational_expression,
       Item 1 sym_shift_expression, Item 1 sym_type_cast_expression,
       Item 1 sym_type_test_expression, Item 2 aux_sym_logical_or_expression_repeat1]), (724,
       [Item 1 sym__expression_without_cascade, Item 1 sym_additive_expression,
       Item 1 sym_bitwise_and_expression, Item 1 sym_bitwise_or_expression,
       Item 1 sym_bitwise_xor_expression, Item 1 sym_conditional_expression,
       Item 1 sym_equality_expression, Item 1 sym_if_null_expression,
       Item 1 sym_logical_and_expression, Item 1 sym_logical_or_expression,
       Item 1 sym_relational_expression, Item 1 sym_shift_expression,
       Item 1 sym_type_cast_expression, Item 1 sym_type_test_expression]), (725,
       [Item 1 sym_additive_expression, Item 1 sym_bitwise_and_expression,
       Item 1 sym_bitwise_or_expression, Item 1 sym_bitwise_xor_expression,
       Item 1 sym_conditional_expression, Item 1 sym_equality_expression,
       Item 1 sym_if_null_expression, Item 1 sym_logical_and_expression,
       Item 1 sym_logical_or_expression, Item 1 sym_relational_expression,
       Item 1 sym_shift_expression, Item 1 sym_type_cast_expression,
       Item 1 sym_type_test_expression, Item 2 aux_sym_bitwise_xor_expression_repeat1]), (726,
       [Item 1 sym_additive_expression, Item 1 sym_bitwise_and_expression,
       Item 1 sym_bitwise_or_expression, Item 1 sym_bitwise_xor_expression,
       Item 1 sym_conditional_expression, Item 1 sym_equality_expression,
       Item 1 sym_if_null_expression, Item 1 sym_logical_and_expression,
       Item 1 sym_logical_or_expression, Item 1 sym_relational_expression,
       Item 1 sym_shift_expression, Item 1 sym_type_cast_expression,
       Item 1 sym_type_test_expression, Item 2 aux_sym__if_null_expression]), (727,
       [Item 1 sym_additive_expression, Item 1 sym_bitwise_and_expression,
       Item 1 sym_bitwise_or_expression, Item 1 sym_bitwise_xor_expression,
       Item 1 sym_conditional_expression, Item 1 sym_equality_expression,
       Item 1 sym_if_null_expression, Item 1 sym_logical_and_expression,
       Item 1 sym_logical_or_expression, Item 1 sym_relational_expression,
       Item 1 sym_shift_expression, Item 1 sym_type_cast_expression,
       Item 1 sym_type_test_expression, Item 2 aux_sym_logical_and_expression_repeat1]), (728,
       [Item 1 sym_assignable_expression, Item 1 sym_postfix_expression]), (729,
       [Item 1 aux_sym_string_literal_repeat1]), (730,
       [Item 3 sym__raw_string_literal_double_quotes_multiple]), (731,
       [Item 3 sym__string_literal_double_quotes]), (732,
       [Item 2 sym__string_literal_double_quotes_multiple]), (733,
       [Item 3 sym__string_literal_single_quotes]), (734,
       [Item 2 sym__raw_string_literal_single_quotes_multiple]), (735,
       [Item 2 sym__raw_string_literal_double_quotes_multiple]), (736,
       [Item 2 sym__string_literal_single_quotes]), (737,
       [Item 2 sym__raw_string_literal_single_quotes]), (738,
       [Item 3 sym__string_literal_double_quotes_multiple]), (739,
       [Item 2 sym__raw_string_literal_double_quotes]), (740,
       [Item 3 sym__raw_string_literal_single_quotes_multiple]), (741,
       [Item 1 aux_sym__assignable_selector_part_repeat1, Item 1 sym__assignable_selector_part,
       Item 2 sym__postfix_expression]), (742,
       [Item 1 aux_sym__assignable_selector_part_repeat1, Item 1 sym__assignable_selector_part,
       Item 2 sym_postfix_expression]), (743, [Item 3 sym__raw_string_literal_single_quotes]),
       (744, [Item 1 aux_sym__assignable_selector_part_repeat1,
       Item 2 aux_sym__assignable_selector_part_repeat1]), (745,
       [Item 3 sym__string_literal_single_quotes_multiple]), (746,
       [Item 2 sym__string_literal_double_quotes]), (747,
       [Item 2 sym__string_literal_single_quotes_multiple]), (748,
       [Item 1 aux_sym__assignable_selector_part_repeat1, Item 1 sym__assignable_selector_part,
       Item 2 sym__postfix_expression]), (749,
       [Item 1 aux_sym__assignable_selector_part_repeat1, Item 1 sym__assignable_selector_part,
       Item 2 sym_postfix_expression]), (750, [Item 3 sym__raw_string_literal_double_quotes]),
       (751, [Item 1 aux_sym__named_formal_parameters_repeat1,
       Item 3 sym__named_formal_parameters])]"

definition lr_items_6 :: "(TSStateId \<times> lr_item list) list" where
  "lr_items_6 = [
     (752, [Item 1 sym__function_type_tail, Item 1 sym__type_not_void_not_function]), (753,
       [Item 1 sym_additive_expression, Item 1 sym_bitwise_and_expression,
       Item 1 sym_bitwise_or_expression, Item 1 sym_bitwise_xor_expression,
       Item 1 sym_conditional_expression, Item 1 sym_equality_expression,
       Item 1 sym_if_null_expression, Item 1 sym_logical_and_expression,
       Item 1 sym_logical_or_expression, Item 1 sym_relational_expression,
       Item 1 sym_shift_expression, Item 1 sym_type_cast_expression,
       Item 1 sym_type_test_expression, Item 2 aux_sym_shift_expression_repeat1]), (754,
       [Item 1 sym__expression_without_cascade, Item 1 sym_additive_expression,
       Item 1 sym_bitwise_and_expression, Item 1 sym_bitwise_or_expression,
       Item 1 sym_bitwise_xor_expression, Item 1 sym_conditional_expression,
       Item 1 sym_equality_expression, Item 1 sym_if_null_expression,
       Item 1 sym_logical_and_expression, Item 1 sym_logical_or_expression,
       Item 1 sym_relational_expression, Item 1 sym_shift_expression,
       Item 1 sym_type_cast_expression, Item 1 sym_type_test_expression]), (755,
       [Item 1 sym_additive_expression, Item 1 sym_bitwise_and_expression,
       Item 1 sym_bitwise_or_expression, Item 1 sym_bitwise_xor_expression,
       Item 1 sym_if_null_expression, Item 1 sym_logical_and_expression,
       Item 1 sym_logical_or_expression, Item 1 sym_relational_expression,
       Item 1 sym_shift_expression, Item 1 sym_type_cast_expression,
       Item 1 sym_type_test_expression, Item 3 sym_relational_expression]), (756,
       [Item 1 sym_additive_expression, Item 1 sym_bitwise_and_expression,
       Item 1 sym_bitwise_or_expression, Item 1 sym_bitwise_xor_expression,
       Item 1 sym_equality_expression, Item 1 sym_if_null_expression,
       Item 1 sym_logical_and_expression, Item 1 sym_logical_or_expression,
       Item 1 sym_relational_expression, Item 1 sym_shift_expression,
       Item 1 sym_type_cast_expression, Item 1 sym_type_test_expression,
       Item 3 sym_equality_expression]), (757, [Item 1 sym__expression_without_cascade,
       Item 1 sym_additive_expression, Item 1 sym_bitwise_and_expression,
       Item 1 sym_bitwise_or_expression, Item 1 sym_bitwise_xor_expression,
       Item 1 sym_conditional_expression, Item 1 sym_equality_expression,
       Item 1 sym_if_null_expression, Item 1 sym_logical_and_expression,
       Item 1 sym_logical_or_expression, Item 1 sym_relational_expression,
       Item 1 sym_shift_expression, Item 1 sym_type_cast_expression,
       Item 1 sym_type_test_expression]), (758, [Item 1 aux_sym__function_type_tails,
       Item 1 sym_function_type]), (759, [Item 2 sym_cascade_section]), (760,
       [Item 1 sym_additive_expression, Item 1 sym_bitwise_and_expression,
       Item 1 sym_bitwise_or_expression, Item 1 sym_bitwise_xor_expression,
       Item 1 sym_conditional_expression, Item 1 sym_equality_expression,
       Item 1 sym_if_null_expression, Item 1 sym_logical_and_expression,
       Item 1 sym_logical_or_expression, Item 1 sym_relational_expression,
       Item 1 sym_shift_expression, Item 1 sym_type_cast_expression,
       Item 1 sym_type_test_expression, Item 2 aux_sym_bitwise_and_expression_repeat1]), (761,
       [Item 1 sym_additive_expression, Item 1 sym_bitwise_and_expression,
       Item 1 sym_bitwise_or_expression, Item 1 sym_bitwise_xor_expression,
       Item 1 sym_conditional_expression, Item 1 sym_equality_expression,
       Item 1 sym_if_null_expression, Item 1 sym_logical_and_expression,
       Item 1 sym_logical_or_expression, Item 1 sym_relational_expression,
       Item 1 sym_shift_expression, Item 1 sym_type_cast_expression,
       Item 1 sym_type_test_expression, Item 2 aux_sym__if_null_expression]), (762,
       [Item 1 sym_additive_expression, Item 1 sym_bitwise_and_expression,
       Item 1 sym_bitwise_or_expression, Item 1 sym_bitwise_xor_expression,
       Item 1 sym_conditional_expression, Item 1 sym_equality_expression,
       Item 1 sym_if_null_expression, Item 1 sym_logical_and_expression,
       Item 1 sym_logical_or_expression, Item 1 sym_relational_expression,
       Item 1 sym_shift_expression, Item 1 sym_type_cast_expression,
       Item 1 sym_type_test_expression, Item 2 sym__relational_pattern]), (763,
       [Item 1 sym_additive_expression, Item 1 sym_bitwise_and_expression,
       Item 1 sym_bitwise_or_expression, Item 1 sym_bitwise_xor_expression,
       Item 1 sym_conditional_expression, Item 1 sym_equality_expression,
       Item 1 sym_if_null_expression, Item 1 sym_logical_and_expression,
       Item 1 sym_logical_or_expression, Item 1 sym_relational_expression,
       Item 1 sym_shift_expression, Item 1 sym_type_cast_expression,
       Item 1 sym_type_test_expression, Item 2 aux_sym_additive_expression_repeat1]), (764,
       [Item 1 aux_sym__named_formal_parameters_repeat1, Item 4 sym__named_formal_parameters]),
       (765, [Item 1 sym_additive_expression, Item 1 sym_bitwise_and_expression,
       Item 1 sym_bitwise_or_expression, Item 1 sym_bitwise_xor_expression,
       Item 1 sym_conditional_expression, Item 1 sym_equality_expression,
       Item 1 sym_if_null_expression, Item 1 sym_logical_and_expression,
       Item 1 sym_logical_or_expression, Item 1 sym_relational_expression,
       Item 1 sym_shift_expression, Item 1 sym_type_cast_expression,
       Item 1 sym_type_test_expression, Item 2 aux_sym_bitwise_xor_expression_repeat1]), (766,
       [Item 1 aux_sym__function_type_tails, Item 2 sym_function_type]), (767,
       [Item 1 sym_additive_expression, Item 1 sym_bitwise_and_expression,
       Item 1 sym_bitwise_or_expression, Item 1 sym_bitwise_xor_expression,
       Item 1 sym_conditional_expression, Item 1 sym_equality_expression,
       Item 1 sym_if_null_expression, Item 1 sym_logical_and_expression,
       Item 1 sym_logical_or_expression, Item 1 sym_relational_expression,
       Item 1 sym_shift_expression, Item 1 sym_type_cast_expression,
       Item 1 sym_type_test_expression, Item 2 aux_sym_bitwise_or_expression_repeat1]), (768,
       [Item 1 sym_additive_expression, Item 1 sym_bitwise_and_expression,
       Item 1 sym_bitwise_or_expression, Item 1 sym_bitwise_xor_expression,
       Item 1 sym_conditional_expression, Item 1 sym_equality_expression,
       Item 1 sym_if_null_expression, Item 1 sym_logical_and_expression,
       Item 1 sym_logical_or_expression, Item 1 sym_relational_expression,
       Item 1 sym_shift_expression, Item 1 sym_type_cast_expression,
       Item 1 sym_type_test_expression, Item 2 aux_sym_bitwise_xor_expression_repeat1]), (769,
       [Item 1 sym_additive_expression, Item 1 sym_bitwise_and_expression,
       Item 1 sym_bitwise_or_expression, Item 1 sym_bitwise_xor_expression,
       Item 1 sym_conditional_expression, Item 1 sym_equality_expression,
       Item 1 sym_if_null_expression, Item 1 sym_logical_and_expression,
       Item 1 sym_logical_or_expression, Item 1 sym_relational_expression,
       Item 1 sym_shift_expression, Item 1 sym_type_cast_expression,
       Item 1 sym_type_test_expression, Item 2 aux_sym_bitwise_or_expression_repeat1]), (770,
       [Item 1 sym_additive_expression, Item 1 sym_bitwise_and_expression,
       Item 1 sym_bitwise_or_expression, Item 1 sym_bitwise_xor_expression,
       Item 1 sym_conditional_expression, Item 1 sym_equality_expression,
       Item 1 sym_if_null_expression, Item 1 sym_logical_and_expression,
       Item 1 sym_logical_or_expression, Item 1 sym_relational_expression,
       Item 1 sym_shift_expression, Item 1 sym_type_cast_expression,
       Item 1 sym_type_test_expression, Item 2 aux_sym_logical_and_expression_repeat1]), (771,
       [Item 1 sym_additive_expression, Item 1 sym_bitwise_and_expression,
       Item 1 sym_bitwise_or_expression, Item 1 sym_bitwise_xor_expression,
       Item 1 sym_conditional_expression, Item 1 sym_equality_expression,
       Item 1 sym_if_null_expression, Item 1 sym_logical_and_expression,
       Item 1 sym_logical_or_expression, Item 1 sym_relational_expression,
       Item 1 sym_shift_expression, Item 1 sym_type_cast_expression,
       Item 1 sym_type_test_expression, Item 2 aux_sym_logical_or_expression_repeat1]), (772,
       [Item 1 sym_additive_expression, Item 1 sym_bitwise_and_expression,
       Item 1 sym_bitwise_or_expression, Item 1 sym_bitwise_xor_expression,
       Item 1 sym_conditional_expression, Item 1 sym_equality_expression,
       Item 1 sym_if_null_expression, Item 1 sym_logical_and_expression,
       Item 1 sym_logical_or_expression, Item 1 sym_relational_expression,
       Item 1 sym_shift_expression, Item 1 sym_type_cast_expression,
       Item 1 sym_type_test_expression, Item 2 aux_sym_bitwise_and_expression_repeat1]), (773,
       [Item 1 sym_additive_expression, Item 1 sym_bitwise_and_expression,
       Item 1 sym_bitwise_or_expression, Item 1 sym_bitwise_xor_expression,
       Item 1 sym_equality_expression, Item 1 sym_if_null_expression,
       Item 1 sym_logical_and_expression, Item 1 sym_logical_or_expression,
       Item 1 sym_relational_expression, Item 1 sym_shift_expression,
       Item 1 sym_type_cast_expression, Item 1 sym_type_test_expression,
       Item 3 sym_equality_expression]), (774, [Item 1 aux_sym__function_type_tails,
       Item 2 aux_sym__function_type_tails]), (775, [Item 1 sym_additive_expression,
       Item 1 sym_bitwise_and_expression, Item 1 sym_bitwise_or_expression,
       Item 1 sym_bitwise_xor_expression, Item 1 sym_conditional_expression,
       Item 1 sym_equality_expression, Item 1 sym_if_null_expression,
       Item 1 sym_logical_and_expression, Item 1 sym_logical_or_expression,
       Item 1 sym_relational_expression, Item 1 sym_shift_expression,
       Item 1 sym_type_cast_expression, Item 1 sym_type_test_expression,
       Item 2 aux_sym__if_null_expression]), (776, [Item 1 sym_additive_expression,
       Item 1 sym_bitwise_and_expression, Item 1 sym_bitwise_or_expression,
       Item 1 sym_bitwise_xor_expression, Item 1 sym_conditional_expression,
       Item 1 sym_equality_expression, Item 1 sym_if_null_expression,
       Item 1 sym_logical_and_expression, Item 1 sym_logical_or_expression,
       Item 1 sym_relational_expression, Item 1 sym_shift_expression,
       Item 1 sym_type_cast_expression, Item 1 sym_type_test_expression,
       Item 2 aux_sym_logical_and_expression_repeat1]), (777, [Item 1 sym__function_type_tail]),
       (778, [Item 1 sym_additive_expression, Item 1 sym_bitwise_and_expression,
       Item 1 sym_bitwise_or_expression, Item 1 sym_bitwise_xor_expression,
       Item 1 sym_conditional_expression, Item 1 sym_equality_expression,
       Item 1 sym_if_null_expression, Item 1 sym_logical_and_expression,
       Item 1 sym_logical_or_expression, Item 1 sym_relational_expression,
       Item 1 sym_shift_expression, Item 1 sym_type_cast_expression,
       Item 1 sym_type_test_expression, Item 2 aux_sym_additive_expression_repeat1]), (779,
       [Item 1 sym_additive_expression, Item 1 sym_bitwise_and_expression,
       Item 1 sym_bitwise_or_expression, Item 1 sym_bitwise_xor_expression,
       Item 1 sym_if_null_expression, Item 1 sym_logical_and_expression,
       Item 1 sym_logical_or_expression, Item 1 sym_relational_expression,
       Item 1 sym_shift_expression, Item 1 sym_type_cast_expression,
       Item 1 sym_type_test_expression, Item 3 sym_relational_expression]), (780,
       [Item 1 sym_additive_expression, Item 1 sym_bitwise_and_expression,
       Item 1 sym_bitwise_or_expression, Item 1 sym_bitwise_xor_expression,
       Item 1 sym_conditional_expression, Item 1 sym_equality_expression,
       Item 1 sym_if_null_expression, Item 1 sym_logical_and_expression,
       Item 1 sym_logical_or_expression, Item 1 sym_relational_expression,
       Item 1 sym_shift_expression, Item 1 sym_type_cast_expression,
       Item 1 sym_type_test_expression, Item 2 aux_sym_shift_expression_repeat1]), (781,
       [Item 1 aux_sym_cascade_section_repeat1, Item 3 sym_cascade_section]), (782,
       [Item 1 sym_additive_expression, Item 1 sym_bitwise_and_expression,
       Item 1 sym_bitwise_or_expression, Item 1 sym_bitwise_xor_expression,
       Item 1 sym_conditional_expression, Item 1 sym_equality_expression,
       Item 1 sym_if_null_expression, Item 1 sym_logical_and_expression,
       Item 1 sym_logical_or_expression, Item 1 sym_relational_expression,
       Item 1 sym_shift_expression, Item 1 sym_type_cast_expression,
       Item 1 sym_type_test_expression, Item 2 aux_sym_logical_or_expression_repeat1]), (783,
       [Item 1 sym__named_formal_parameters]), (784, [Item 1 aux_sym_shift_expression_repeat1,
       Item 2 aux_sym_shift_expression_repeat1]), (785, [Item 1 sym_additive_expression,
       Item 1 sym_bitwise_and_expression, Item 1 sym_bitwise_or_expression,
       Item 1 sym_bitwise_xor_expression, Item 1 sym_conditional_expression,
       Item 1 sym_equality_expression, Item 1 sym_if_null_expression,
       Item 1 sym_logical_and_expression, Item 1 sym_logical_or_expression,
       Item 1 sym_relational_expression, Item 1 sym_shift_expression,
       Item 1 sym_type_cast_expression, Item 1 sym_type_test_expression,
       Item 3 sym_field_initializer]), (786, [Item 1 sym_relational_operator,
       Item 1 sym_type_arguments]), (787, [Item 1 sym__real_expression,
       Item 1 sym_multiplicative_expression]), (788, [Item 1 sym__declared_identifier,
       Item 1 sym__default_named_parameter, Item 1 sym__normal_formal_parameter,
       Item 1 sym_record_type_named_field]), (789, [Item 3 sym__function_type_tail]), (790,
       [Item 1 sym_additive_expression, Item 1 sym_bitwise_and_expression,
       Item 1 sym_bitwise_or_expression, Item 1 sym_bitwise_xor_expression,
       Item 1 sym_conditional_expression, Item 1 sym_equality_expression,
       Item 1 sym_if_null_expression, Item 1 sym_logical_and_expression,
       Item 1 sym_logical_or_expression, Item 1 sym_relational_expression,
       Item 1 sym_shift_expression, Item 1 sym_type_cast_expression,
       Item 1 sym_type_test_expression, Item 5 sym_field_initializer]), (791,
       [Item 1 aux_sym_multiplicative_expression_repeat1,
       Item 2 sym_multiplicative_expression]), (792, [Item 1 aux_sym_shift_expression_repeat1,
       Item 2 sym_shift_expression]), (793, [Item 1 aux_sym_multiplicative_expression_repeat1,
       Item 2 aux_sym_multiplicative_expression_repeat1]), (794,
       [Item 3 sym__raw_string_literal_double_quotes_multiple]), (795,
       [Item 2 sym__function_type_tail]), (796, [Item 3 sym__string_literal_double_quotes]),
       (797, [Item 2 sym__function_type_tail, Item 2 sym__type_not_void_not_function]), (798,
       [Item 3 sym__string_literal_single_quotes]), (799,
       [Item 1 aux_sym_string_literal_repeat1]), (800,
       [Item 1 aux_sym__named_formal_parameters_repeat1]), (801,
       [Item 2 sym__function_type_tail]), (802,
       [Item 2 sym__raw_string_literal_single_quotes_multiple]), (803,
       [Item 3 sym__string_literal_double_quotes_multiple]), (804,
       [Item 2 sym__raw_string_literal_double_quotes_multiple]), (805,
       [Item 1 sym__type_not_void_not_function]), (806,
       [Item 2 sym__raw_string_literal_single_quotes]), (807,
       [Item 2 sym__raw_string_literal_double_quotes]), (808,
       [Item 2 sym__string_literal_single_quotes_multiple]), (809,
       [Item 3 sym__string_literal_single_quotes_multiple]), (810,
       [Item 3 sym__raw_string_literal_double_quotes]), (811,
       [Item 3 sym__raw_string_literal_single_quotes_multiple]), (812,
       [Item 2 sym__string_literal_double_quotes_multiple]), (813,
       [Item 3 sym__raw_string_literal_single_quotes]), (814,
       [Item 2 sym__string_literal_single_quotes]), (815,
       [Item 2 sym__string_literal_double_quotes]), (816, [Item 1 sym__type_not_function,
       Item 1 sym__type_not_void]), (817, [Item 2 sym__type_not_void_not_function]), (818,
       [Item 3 sym__function_type_tail]), (819, [Item 1 aux_sym__expression_repeat1,
       Item 2 sym__expression]), (820, [Item 1 aux_sym_logical_or_expression_repeat1,
       Item 2 aux_sym_logical_or_expression_repeat1]), (821, [Item 4 sym__function_type_tail]),
       (822, [Item 1 aux_sym_logical_and_expression_repeat1,
       Item 2 aux_sym_logical_and_expression_repeat1]), (823,
       [Item 1 aux_sym_cascade_section_repeat1, Item 3 sym_cascade_section]), (824,
       [Item 1 aux_sym_additive_expression_repeat1,
       Item 2 aux_sym_additive_expression_repeat1]), (825, [Item 1 sym__declared_identifier,
       Item 1 sym__default_named_parameter, Item 1 sym__normal_formal_parameter]), (826,
       [Item 1 aux_sym_positional_parameters_repeat1,
       Item 3 sym__optional_postional_formal_parameters]), (827,
       [Item 2 sym__function_type_tail]), (828, [Item 1 sym__type_name]), (829,
       [Item 1 aux_sym__expression_repeat1, Item 2 aux_sym__expression_repeat1]), (830,
       [Item 2 sym_cascade_section]), (831, [Item 1 aux_sym_positional_parameters_repeat1,
       Item 4 sym__optional_postional_formal_parameters]), (832, [Item 1 sym__primary,
       Item 1 sym__type_name, Item 1 sym_assignable_expression]), (833,
       [Item 1 aux_sym_additive_expression_repeat1, Item 2 sym_additive_expression]), (834,
       [Item 1 aux_sym_logical_or_expression_repeat1, Item 2 sym_logical_or_expression]), (835,
       [Item 1 aux_sym_logical_and_expression_repeat1, Item 2 sym_logical_and_expression]),
       (836, [Item 1 sym_unconditional_assignable_selector]), (837,
       [Item 1 aux_sym_positional_parameters_repeat1]), (838, [Item 2 sym_record_type]), (839,
       [Item 1 aux_sym_bitwise_or_expression_repeat1, Item 2 sym_bitwise_or_expression]), (840,
       [Item 1 aux_sym_bitwise_xor_expression_repeat1, Item 2 sym_bitwise_xor_expression]),
       (841, [Item 1 aux_sym_bitwise_and_expression_repeat1,
       Item 2 sym_bitwise_and_expression]), (842, [Item 2 sym__type_name]), (843,
       [Item 1 sym__function_type_tail, Item 1 sym__type_not_void_not_function]), (844,
       [Item 1 sym_nullable_type]), (845, [Item 4 sym_parameter_type_list]), (846,
       [Item 1 aux_sym__function_type_tails, Item 2 aux_sym__function_type_tails]), (847,
       [Item 5 sym__function_type_tail]), (848, [Item 6 sym_record_type]), (849,
       [Item 3 sym_map_pattern, Item 3 sym_set_or_map_literal]), (850,
       [Item 3 sym_index_selector]), (851, [Item 1 sym__function_type_tail]), (852,
       [Item 3 sym_list_literal, Item 3 sym_list_pattern]), (853,
       [Item 5 sym_parameter_type_list]), (854, [Item 7 sym_record_type]), (855,
       [Item 2 sym_type_arguments]), (856, [Item 6 sym_parameter_type_list]), (857,
       [Item 1 sym__type_not_function, Item 1 sym__type_not_void]), (858,
       [Item 1 sym__assignable_selector]), (859, [Item 1 sym__assignable_selector_part,
       Item 1 sym_selector]), (860, [Item 2 sym_list_literal, Item 2 sym_list_pattern]), (861,
       [Item 8 sym_record_type]), (862, [Item 3 sym_constructor_invocation,
       Item 3 sym_constructor_tearoff]), (863, [Item 1 sym__function_builtin_identifier]), (864,
       [Item 9 sym_record_type]), (865, [Item 3 sym_type_arguments]), (866,
       [Item 10 sym_record_type]), (867, [Item 1 aux_sym__function_type_tails,
       Item 1 sym_function_type]), (868, [Item 1 aux_sym__function_type_tails]), (869,
       [Item 1 sym_argument_part, Item 1 sym_selector]), (870,
       [Item 3 sym_parenthesized_expression]), (871, [Item 2 sym__primary,
       Item 2 sym_assignable_expression]), (872, [Item 2 sym__type_not_void_not_function]),
       (873, [Item 1 sym_selector, Item 2 sym__assignable_selector_part]), (874,
       [Item 1 aux_sym_cascade_section_repeat1, Item 2 aux_sym_cascade_section_repeat1]), (875,
       [Item 2 sym_unconditional_assignable_selector]), (876,
       [Item 2 sym_conditional_assignable_selector]), (877, [Item 3 sym_record_type]), (878,
       [Item 1 aux_sym__function_type_tails, Item 2 sym_function_type]), (879,
       [Item 3 sym_type_parameters]), (880, [Item 1 sym__type_not_void]), (881,
       [Item 4 sym_type_arguments]), (882, [Item 4 sym_type_parameters]), (883,
       [Item 2 sym_map_pattern, Item 2 sym_set_or_map_literal]), (884,
       [Item 1 aux_sym__if_null_expression, Item 2 sym_if_null_expression]), (885,
       [Item 1 aux_sym_bitwise_and_expression_repeat1,
       Item 2 aux_sym_bitwise_and_expression_repeat1]), (886,
       [Item 1 aux_sym_bitwise_xor_expression_repeat1,
       Item 2 aux_sym_bitwise_xor_expression_repeat1]), (887,
       [Item 1 aux_sym_bitwise_or_expression_repeat1,
       Item 2 aux_sym_bitwise_or_expression_repeat1]), (888, [Item 2 sym__type_not_function,
       Item 2 sym__type_not_void]), (889, [Item 5 sym_record_type]), (890,
       [Item 1 sym__optional_postional_formal_parameters]), (891,
       [Item 2 sym__type_dot_identifier]), (892, [Item 3 sym__type_not_void_not_function]),
       (893, [Item 2 sym_parameter_type_list]), (894, [Item 4 sym__function_type_tail]), (895,
       [Item 1 sym__primary, Item 1 sym__type_name, Item 1 sym_assignable_expression]), (896,
       [Item 3 sym_parameter_type_list]), (897, [Item 3 sym__function_type_tail]), (898,
       [Item 4 sym_record_type]), (899, [Item 1 aux_sym__if_null_expression,
       Item 2 aux_sym__if_null_expression]), (900, [Item 1 sym__bool_literal]), (901,
       [Item 2 sym_symbol_literal])]"

definition lr_items_7 :: "(TSStateId \<times> lr_item list) list" where
  "lr_items_7 = [
     (902, [Item 1 sym__real_expression, Item 1 sym_multiplicative_expression]), (903,
       [Item 4 sym_list_literal]), (904, [Item 1 sym_selector,
       Item 2 sym__assignable_selector_part]), (905, [Item 1 sym__expression_without_cascade]),
       (906, [Item 1 sym_unconditional_assignable_selector]), (907,
       [Item 1 sym__assignable_selector]), (908, [Item 1 sym__expression]), (909,
       [Item 3 sym_list_literal]), (910, [Item 1 sym__default_named_parameter]), (911,
       [Item 3 sym_new_expression]), (912, [Item 2 sym_type_test]), (913,
       [Item 2 sym_type_cast]), (914, [Item 1 aux_sym__expression_repeat1]), (915,
       [Item 3 sym_set_or_map_literal]), (916, [Item 6 sym_set_or_map_literal]), (917,
       [Item 6 sym_list_literal]), (918, [Item 3 sym_arguments]), (919,
       [Item 2 sym__default_named_parameter]), (920, [Item 2 sym__primary,
       Item 2 sym_assignable_expression]), (921, [Item 2 sym_function_expression_body]), (922,
       [Item 1 sym__assignable_selector_part, Item 1 sym_selector]), (923, [Item 3 sym_block]),
       (924, [Item 1 sym_record_literal]), (925, [Item 5 sym_set_or_map_literal]), (926,
       [Item 2 aux_sym_multiplicative_expression_repeat1]), (927, [Item 4 sym_new_expression]),
       (928, [Item 3 sym__function_type_tail]), (929, [Item 2 sym__function_type_tail]), (930,
       [Item 1 aux_sym_multiplicative_expression_repeat1,
       Item 2 sym_multiplicative_expression]), (931,
       [Item 1 aux_sym__normal_formal_parameters_repeat1]), (932, [Item 1 sym__primary,
       Item 1 sym__type_name, Item 1 sym_assignable_expression]), (933,
       [Item 2 sym__function_type_tail, Item 2 sym__type_not_void_not_function]), (934,
       [Item 6 sym_switch_expression]), (935, [Item 2 sym_throw_expression_without_cascade]),
       (936, [Item 2 sym__function_type_tail]), (937, [Item 7 sym_list_literal]), (938,
       [Item 2 sym_set_or_map_literal]), (939, [Item 5 sym_cascade_section]), (940,
       [Item 2 sym_list_literal]), (941, [Item 3 sym_pattern_assignment]), (942,
       [Item 2 sym_postfix_expression]), (943, [Item 2 sym_argument_part]), (944,
       [Item 1 sym_postfix_operator]), (945, [Item 3 sym_function_expression_body]), (946,
       [Item 1 sym_super]), (947, [Item 5 sym_constructor_invocation]), (948,
       [Item 4 sym__record_literal_no_const]), (949, [Item 5 sym_conditional_expression]), (950,
       [Item 3 sym_assignment_expression_without_cascade]), (951,
       [Item 3 sym_assignment_expression]), (952, [Item 1 sym_this]), (953,
       [Item 1 sym__new_builtin]), (954, [Item 4 sym_constructor_tearoff]), (955,
       [Item 4 sym_constructor_invocation]), (956, [Item 2 sym_type_cast_expression]), (957,
       [Item 2 sym_type_test_expression]), (958, [Item 7 sym_set_or_map_literal]), (959,
       [Item 2 sym__type_not_void]), (960, [Item 5 sym_list_literal]), (961,
       [Item 1 aux_sym_shift_expression_repeat1, Item 2 aux_sym_shift_expression_repeat1]),
       (962, [Item 1 sym__primary]), (963, [Item 3 sym_const_object_expression]), (964,
       [Item 1 aux_sym__assignable_selector_part_repeat1]), (965,
       [Item 1 aux_sym_cascade_section_repeat2, Item 2 aux_sym_cascade_section_repeat2]), (966,
       [Item 2 sym_function_expression]), (967, [Item 1 sym__exclamation_operator]), (968,
       [Item 2 sym_await_expression]), (969, [Item 2 sym_unary_expression]), (970,
       [Item 2 sym_conditional_assignable_selector]), (971,
       [Item 2 sym_unconditional_assignable_selector]), (972,
       [Item 1 aux_sym_multiplicative_expression_repeat1,
       Item 2 aux_sym_multiplicative_expression_repeat1]), (973,
       [Item 4 sym_set_or_map_literal]), (974, [Item 1 sym_function_expression_body]), (975,
       [Item 2 sym_assignable_expression]), (976, [Item 5 sym__record_literal_no_const]), (977,
       [Item 2 sym_block]), (978, [Item 1 sym__type_not_void_not_function]), (979,
       [Item 2 sym_record_literal]), (980, [Item 4 sym_cascade_section]), (981,
       [Item 1 sym__numeric_literal]), (982, [Item 1 sym_true]), (983,
       [Item 1 aux_sym_cascade_section_repeat1, Item 2 sym__cascade_subsection]), (984,
       [Item 2 sym_arguments]), (985, [Item 1 sym_false]), (986, [Item 1 sym_null_literal]),
       (987, [Item 1 aux_sym_shift_expression_repeat1, Item 2 sym_shift_expression]), (988,
       [Item 5 sym_switch_expression]), (989, [Item 1 sym__literal]), (990,
       [Item 2 sym__cascade_assignment_section]), (991, [Item 1 sym_unary_expression]), (992,
       [Item 1 sym_argument_part]), (993, [Item 1 sym__postfix_expression]), (994,
       [Item 1 sym__unary_expression]), (995, [Item 1 sym_selector]), (996,
       [Item 1 sym__real_expression]), (997, [Item 1 sym__cascade_subsection]), (998,
       [Item 3 sym_index_selector]), (999, [Item 3 sym_cascade_section]), (1000,
       [Item 4 sym_const_object_expression]), (1001, [Item 1 sym_rethrow_expression]), (1002,
       [Item 7 sym_switch_expression]), (1003, [Item 2 sym_throw_expression]), (1004,
       [Item 1 sym__primary, Item 1 sym__type_name, Item 1 sym_assignable_expression]), (1005,
       [Item 1 aux_sym_additive_expression_repeat1, Item 2 sym_additive_expression]), (1006,
       [Item 4 sym__function_type_tail]), (1007, [Item 1 aux_sym__expression_repeat1,
       Item 2 sym__expression]), (1008, [Item 1 aux_sym_logical_and_expression_repeat1,
       Item 2 sym_logical_and_expression]), (1009, [Item 1 sym_selector,
       Item 2 sym__assignable_selector_part]), (1010,
       [Item 1 aux_sym_logical_or_expression_repeat1, Item 2 sym_logical_or_expression]), (1011,
       [Item 1 sym__type_name]), (1012, [Item 1 aux_sym__expression_repeat1,
       Item 2 sym__expression]), (1013, [Item 2 sym__type_not_void_not_function]), (1014,
       [Item 2 sym__function_type_tail]), (1015, [Item 1 sym__type_not_function,
       Item 1 sym__type_not_void]), (1016, [Item 1 aux_sym_additive_expression_repeat1,
       Item 2 aux_sym_additive_expression_repeat1]), (1017, [Item 1 aux_sym__expression_repeat1,
       Item 2 aux_sym__expression_repeat1]), (1018, [Item 2 sym__primary,
       Item 2 sym_assignable_expression]), (1019, [Item 1 aux_sym_logical_or_expression_repeat1,
       Item 2 aux_sym_logical_or_expression_repeat1]), (1020,
       [Item 1 sym__assignable_selector_part, Item 1 sym_selector]), (1021,
       [Item 1 aux_sym_logical_and_expression_repeat1,
       Item 2 aux_sym_logical_and_expression_repeat1]), (1022,
       [Item 3 sym__function_type_tail]), (1023, [Item 2 sym_record_type]), (1024,
       [Item 5 sym_parameter_type_list]), (1025, [Item 1 aux_sym_bitwise_xor_expression_repeat1,
       Item 2 aux_sym_bitwise_xor_expression_repeat1]), (1026,
       [Item 3 sym__function_type_tail]), (1027, [Item 1 sym_selector,
       Item 2 sym__assignable_selector_part]), (1028, [Item 2 sym__primary,
       Item 2 sym_assignable_expression]), (1029, [Item 5 sym_record_type]), (1030,
       [Item 1 sym__assignable_selector_part, Item 1 sym_selector]), (1031,
       [Item 4 sym_type_arguments]), (1032, [Item 4 sym_record_type]), (1033,
       [Item 1 aux_sym_bitwise_or_expression_repeat1,
       Item 2 aux_sym_bitwise_or_expression_repeat1]), (1034,
       [Item 1 sym_unconditional_assignable_selector]), (1035, [Item 1 sym__type_not_function,
       Item 1 sym__type_not_void]), (1036, [Item 1 sym__assignable_selector]), (1037,
       [Item 2 sym__type_not_function, Item 2 sym__type_not_void]), (1038,
       [Item 2 sym__type_name]), (1039, [Item 1 sym__type_not_void]), (1040,
       [Item 3 sym__type_not_void_not_function]), (1041, [Item 3 sym_type_arguments]), (1042,
       [Item 2 sym__type_dot_identifier]), (1043, [Item 2 sym_map_pattern,
       Item 2 sym_set_or_map_literal]), (1044, [Item 1 sym__primary, Item 1 sym__type_name,
       Item 1 sym_assignable_expression]), (1045, [Item 3 sym_map_pattern,
       Item 3 sym_set_or_map_literal]), (1046, [Item 3 sym_list_literal,
       Item 3 sym_list_pattern]), (1047, [Item 1 aux_sym__if_null_expression,
       Item 2 aux_sym__if_null_expression]), (1048, [Item 3 sym_type_parameters]), (1049,
       [Item 2 sym_type_arguments]), (1050, [Item 1 aux_sym_program_repeat1,
       Item 2 aux_sym_program_repeat1]), (1051, [Item 6 sym_record_type])]"

definition lr_items_8 :: "(TSStateId \<times> lr_item list) list" where
  "lr_items_8 = [
     (1052, [Item 2 sym_conditional_assignable_selector]), (1053, [Item 4 sym_type_parameters]),
       (1054, [Item 1 aux_sym__if_null_expression, Item 2 sym_if_null_expression]), (1055,
       [Item 2 sym__type_not_void_not_function]), (1056, [Item 3 sym_constructor_invocation,
       Item 3 sym_constructor_tearoff]), (1057, [Item 2 sym_unconditional_assignable_selector]),
       (1058, [Item 2 sym_parameter_type_list]), (1059, [Item 1 sym__declared_identifier,
       Item 1 sym_local_function_declaration, Item 1 sym_local_variable_declaration]), (1060,
       [Item 1 sym__primary, Item 1 sym__type_name, Item 1 sym_assignable_expression]), (1061,
       [Item 1 sym_nullable_type]), (1062, [Item 1 aux_sym_bitwise_and_expression_repeat1,
       Item 2 aux_sym_bitwise_and_expression_repeat1]), (1063,
       [Item 1 aux_sym_bitwise_xor_expression_repeat1, Item 2 sym_bitwise_xor_expression]),
       (1064, [Item 1 sym__declared_identifier, Item 1 sym__normal_formal_parameter,
       Item 1 sym_record_type_field]), (1065, [Item 1 sym__function_builtin_identifier]), (1066,
       [Item 4 sym_parameter_type_list]), (1067, [Item 5 sym__function_type_tail]), (1068,
       [Item 3 sym_index_selector]), (1069, [Item 1 aux_sym_cascade_section_repeat2,
       Item 3 sym_cascade_section]), (1070, [Item 10 sym_record_type]), (1071,
       [Item 1 aux_sym__function_type_tails]), (1072,
       [Item 1 aux_sym_bitwise_or_expression_repeat1, Item 2 sym_bitwise_or_expression]), (1073,
       [Item 4 sym__function_type_tail]), (1074, [Item 1 aux_sym_cascade_section_repeat2,
       Item 4 sym_cascade_section]), (1075, [Item 3 sym_record_type]), (1076,
       [Item 3 sym_parameter_type_list]), (1077, [Item 1 sym__declared_identifier,
       Item 1 sym__normal_formal_parameter]), (1078, [Item 1 sym_argument_part,
       Item 1 sym_selector]), (1079, [Item 7 sym_record_type]), (1080,
       [Item 8 sym_record_type]), (1081, [Item 2 sym_list_literal, Item 2 sym_list_pattern]),
       (1082, [Item 6 sym_parameter_type_list]), (1083, [Item 9 sym_record_type]), (1084,
       [Item 1 aux_sym_bitwise_and_expression_repeat1, Item 2 sym_bitwise_and_expression]),
       (1085, [Item 2 sym_function_expression]), (1086, [Item 1 sym__primary,
       Item 1 sym__type_name, Item 1 sym_assignable_expression]), (1087,
       [Item 2 sym_throw_expression]), (1088, [Item 1 aux_sym_cascade_section_repeat1]), (1089,
       [Item 2 sym_record_literal]), (1090, [Item 1 sym_unconditional_assignable_selector]),
       (1091, [Item 2 sym_throw_expression_without_cascade]), (1092, [Item 2 sym_arguments]),
       (1093, [Item 1 sym_unary_expression]), (1094, [Item 2 sym_postfix_expression]), (1095,
       [Item 1 sym_postfix_operator]), (1096, [Item 1 sym__assignable_selector]), (1097,
       [Item 4 sym_const_object_expression]), (1098, [Item 1 sym__postfix_expression]), (1099,
       [Item 1 sym__assignable_selector_part, Item 1 sym_selector]), (1100,
       [Item 2 sym__primary, Item 2 sym_assignable_expression]), (1101, [Item 2 sym__primary,
       Item 2 sym_assignable_expression]), (1102, [Item 2 sym_cascade_selector]), (1103,
       [Item 1 sym_super]), (1104, [Item 1 aux_sym__assignable_selector_part_repeat1]), (1105,
       [Item 1 sym_selector]), (1106, [Item 3 sym_assignment_expression_without_cascade]),
       (1107, [Item 1 sym__assignable_selector_part, Item 1 sym_selector]), (1108,
       [Item 2 sym_arguments]), (1109, [Item 1 sym_argument_part]), (1110,
       [Item 3 sym_index_selector]), (1111, [Item 5 sym_cascade_section]), (1112,
       [Item 2 sym_conditional_assignable_selector]), (1113,
       [Item 2 sym_unconditional_assignable_selector]), (1114, [Item 1 sym__unary_expression]),
       (1115, [Item 1 sym__literal]), (1116, [Item 1 sym_selector,
       Item 2 sym__assignable_selector_part]), (1117, [Item 1 sym__real_expression]), (1118,
       [Item 2 sym_type_cast_expression]), (1119, [Item 1 sym_function_expression_body]), (1120,
       [Item 1 sym_rethrow_expression]), (1121, [Item 1 sym__real_expression,
       Item 1 sym_multiplicative_expression]), (1122,
       [Item 2 sym_unconditional_assignable_selector]), (1123, [Item 4 sym_cascade_section]),
       (1124, [Item 2 sym_conditional_assignable_selector]), (1125,
       [Item 3 sym_set_or_map_literal]), (1126, [Item 1 sym_cascade_selector]), (1127,
       [Item 3 sym_list_literal]), (1128, [Item 3 sym_parenthesized_expression]), (1129,
       [Item 2 sym_set_or_map_literal]), (1130, [Item 2 sym_list_literal]), (1131,
       [Item 3 sym_assignment_expression]), (1132, [Item 1 sym_this]), (1133,
       [Item 1 aux_sym__expression_repeat1]), (1134, [Item 3 sym_arguments]), (1135,
       [Item 1 sym__primary]), (1136, [Item 2 sym_argument_part]), (1137,
       [Item 2 sym__type_not_void]), (1138, [Item 1 sym__assignable_selector]), (1139,
       [Item 3 sym_pattern_assignment]), (1140, [Item 1 sym_selector,
       Item 2 sym__assignable_selector_part]), (1141, [Item 1 aux_sym_cascade_section_repeat2]),
       (1142, [Item 2 sym_function_expression_body]), (1143, [Item 2 sym_type_test_expression]),
       (1144, [Item 3 sym_new_expression]), (1145,
       [Item 1 sym_unconditional_assignable_selector]), (1146,
       [Item 2 sym__cascade_assignment_section]), (1147,
       [Item 1 aux_sym_multiplicative_expression_repeat1,
       Item 2 aux_sym_multiplicative_expression_repeat1]), (1148,
       [Item 4 sym_set_or_map_literal]), (1149, [Item 4 sym_list_literal]), (1150,
       [Item 4 sym__record_literal_no_const]), (1151, [Item 3 sym_block]), (1152,
       [Item 2 sym_argument_part]), (1153, [Item 2 sym_await_expression]), (1154,
       [Item 2 sym_unary_expression]), (1155, [Item 3 sym_index_selector]), (1156,
       [Item 4 sym_constructor_invocation]), (1157, [Item 4 sym_constructor_tearoff]), (1158,
       [Item 1 sym_argument_part]), (1159, [Item 1 sym__expression_without_cascade]), (1160,
       [Item 2 sym_arguments]), (1161, [Item 3 sym_function_expression_body]), (1162,
       [Item 4 sym_new_expression]), (1163, [Item 3 sym_cascade_section]), (1164,
       [Item 5 sym_set_or_map_literal]), (1165, [Item 1 sym__bool_literal]), (1166,
       [Item 5 sym_list_literal]), (1167, [Item 1 sym__new_builtin]), (1168,
       [Item 5 sym__record_literal_no_const]), (1169, [Item 5 sym_switch_expression]), (1170,
       [Item 5 sym_constructor_invocation]), (1171, [Item 2 sym_assignable_expression]), (1172,
       [Item 5 sym_conditional_expression]), (1173, [Item 6 sym_switch_expression]), (1174,
       [Item 6 sym_set_or_map_literal]), (1175, [Item 6 sym_list_literal]), (1176,
       [Item 7 sym_switch_expression]), (1177,
       [Item 1 aux_sym_multiplicative_expression_repeat1,
       Item 2 sym_multiplicative_expression]), (1178, [Item 3 sym_arguments]), (1179,
       [Item 7 sym_set_or_map_literal]), (1180, [Item 1 sym__exclamation_operator]), (1181,
       [Item 7 sym_list_literal]), (1182, [Item 3 sym_const_object_expression]), (1183,
       [Item 2 sym_symbol_literal]), (1184, [Item 2 sym_type_cast]), (1185,
       [Item 3 sym_arguments]), (1186, [Item 1 sym__expression]), (1187,
       [Item 1 sym_record_literal]), (1188, [Item 1 sym_null_literal]), (1189,
       [Item 2 sym_type_test]), (1190, [Item 2 aux_sym_multiplicative_expression_repeat1]),
       (1191, [Item 1 sym_super]), (1192, [Item 1 sym__numeric_literal]), (1193,
       [Item 1 sym_true]), (1194, [Item 1 sym_false]), (1195, [Item 2 sym_block]), (1196,
       [Item 2 sym_unconditional_assignable_selector]), (1197,
       [Item 2 sym_conditional_assignable_selector]), (1198,
       [Item 1 aux_sym_cascade_section_repeat2, Item 4 sym_cascade_section]), (1199,
       [Item 1 aux_sym_cascade_section_repeat2, Item 3 sym_cascade_section]), (1200,
       [Item 2 sym_map_pattern, Item 2 sym_set_or_map_literal]), (1201,
       [Item 3 sym_constructor_invocation, Item 3 sym_constructor_tearoff])]"

definition lr_items_9 :: "(TSStateId \<times> lr_item list) list" where
  "lr_items_9 = [
     (1202, [Item 1 sym_argument_part, Item 1 sym_selector]), (1203,
       [Item 1 sym__identifier_or_new, Item 3 sym_constructor_invocation,
       Item 3 sym_constructor_tearoff]), (1204, [Item 1 aux_sym_cascade_section_repeat1,
       Item 3 sym_cascade_section]), (1205, [Item 2 sym__primary,
       Item 2 sym_assignable_expression]), (1206, [Item 1 sym_scoped_identifier,
       Item 2 sym_annotation]), (1207, [Item 1 sym__primary, Item 1 sym__type_name,
       Item 1 sym_assignable_expression]), (1208, [Item 1 sym_selector,
       Item 2 sym__assignable_selector_part]), (1209, [Item 1 sym__assignable_selector_part,
       Item 1 sym_selector]), (1210, [Item 1 sym__assignable_selector]), (1211,
       [Item 1 sym_unconditional_assignable_selector]), (1212, [Item 3 sym_map_pattern,
       Item 3 sym_set_or_map_literal]), (1213, [Item 3 sym_list_literal,
       Item 3 sym_list_pattern]), (1214, [Item 2 sym_list_literal, Item 2 sym_list_pattern]),
       (1215, [Item 2 sym_cascade_section]), (1216, [Item 3 sym_index_selector]), (1217,
       [Item 1 sym__exclamation_operator]), (1218, [Item 2 sym_block]), (1219,
       [Item 5 sym__record_literal_no_const]), (1220, [Item 4 sym_const_object_expression]),
       (1221, [Item 4 sym__record_literal_no_const]), (1222, [Item 4 sym_list_literal]), (1223,
       [Item 4 sym_set_or_map_literal]), (1224, [Item 3 sym_new_expression]), (1225,
       [Item 2 sym_function_expression_body]), (1226, [Item 3 sym_pattern_assignment]), (1227,
       [Item 3 sym_index_selector]), (1228, [Item 2 sym_argument_part]), (1229,
       [Item 2 sym_unconditional_assignable_selector]), (1230,
       [Item 2 sym_conditional_assignable_selector]), (1231, [Item 1 sym__assignable_selector]),
       (1232, [Item 1 sym_unconditional_assignable_selector]), (1233, [Item 2 sym_label]),
       (1234, [Item 4 sym_type_arguments]), (1235,
       [Item 1 aux_sym_multiplicative_expression_repeat1,
       Item 2 aux_sym_multiplicative_expression_repeat1]), (1236,
       [Item 3 sym_assignment_expression]), (1237, [Item 2 sym_list_literal]), (1238,
       [Item 4 sym_constant_pattern, Item 4 sym_set_or_map_literal]), (1239,
       [Item 2 sym_set_or_map_literal]), (1240, [Item 3 sym_arguments]), (1241,
       [Item 4 sym_constant_pattern, Item 4 sym_list_literal]), (1242,
       [Item 3 sym_type_arguments]), (1243, [Item 3 sym_parenthesized_expression]), (1244,
       [Item 3 sym_block]), (1245, [Item 1 sym__literal, Item 1 sym_constant_pattern]), (1246,
       [Item 3 sym_list_literal]), (1247, [Item 3 sym_set_or_map_literal]), (1248,
       [Item 2 sym_function_expression]), (1249, [Item 1 sym__primary,
       Item 1 sym_constant_pattern]), (1250, [Item 1 sym_function_expression_body]), (1251,
       [Item 1 aux_sym_multiplicative_expression_repeat1,
       Item 2 sym_multiplicative_expression]), (1252, [Item 2 sym_arguments]), (1253,
       [Item 1 sym_argument_part]), (1254, [Item 1 sym__primary, Item 1 sym_constructor_param]),
       (1255, [Item 1 sym_selector]), (1256,
       [Item 1 aux_sym__assignable_selector_part_repeat1]), (1257, [Item 2 sym_type_arguments]),
       (1258, [Item 1 sym__assignable_selector_part, Item 1 sym_selector]), (1259,
       [Item 2 sym__primary, Item 2 sym_assignable_expression]), (1260,
       [Item 1 sym__real_expression, Item 1 sym_multiplicative_expression]), (1261,
       [Item 2 sym_record_literal]), (1262, [Item 2 sym_throw_expression]), (1263,
       [Item 3 sym_const_object_expression]), (1264, [Item 2 sym_symbol_literal]), (1265,
       [Item 6 sym_constant_pattern, Item 6 sym_set_or_map_literal]), (1266,
       [Item 6 sym_constant_pattern, Item 6 sym_list_literal]), (1267,
       [Item 1 sym__expression]), (1268, [Item 1 sym_record_literal]), (1269,
       [Item 1 sym_selector, Item 2 sym__assignable_selector_part]), (1270,
       [Item 7 sym_list_literal]), (1271, [Item 7 sym_set_or_map_literal]), (1272,
       [Item 7 sym_switch_expression]), (1273, [Item 6 sym_list_literal]), (1274,
       [Item 6 sym_set_or_map_literal]), (1275, [Item 1 sym__bool_literal]), (1276,
       [Item 6 sym_switch_expression]), (1277, [Item 5 sym_constructor_invocation]), (1278,
       [Item 1 sym__primary]), (1279, [Item 1 sym__literal]), (1280, [Item 1 sym__new_builtin]),
       (1281, [Item 1 sym_rethrow_expression]), (1282, [Item 5 sym_switch_expression]), (1283,
       [Item 5 sym_constant_pattern, Item 5 sym_list_literal]), (1284,
       [Item 1 sym__function_type_tail, Item 1 sym__type_not_void_not_function]), (1285,
       [Item 1 sym__exclamation_operator]), (1286, [Item 5 sym_list_literal]), (1287,
       [Item 4 sym_constructor_invocation]), (1288, [Item 1 sym_null_literal]), (1289,
       [Item 5 sym_set_or_map_literal]), (1290, [Item 1 sym_false]), (1291,
       [Item 4 sym_new_expression]), (1292, [Item 3 sym_function_expression_body]), (1293,
       [Item 1 sym__function_type_tail]), (1294, [Item 1 sym_true]), (1295,
       [Item 1 sym__numeric_literal]), (1296, [Item 1 sym_this]), (1297,
       [Item 5 sym_constant_pattern, Item 5 sym_set_or_map_literal]), (1298,
       [Item 4 sym_constructor_tearoff]), (1299, [Item 7 sym_constant_pattern,
       Item 7 sym_list_literal]), (1300, [Item 7 sym_constant_pattern,
       Item 7 sym_set_or_map_literal]), (1301, [Item 1 sym__postfix_expression]), (1302,
       [Item 1 sym_unary_expression]), (1303, [Item 1 sym__unary_expression]), (1304,
       [Item 2 sym_block, Item 2 sym_map_pattern, Item 2 sym_set_or_map_literal]), (1305,
       [Item 2 sym__function_type_tail]), (1306, [Item 1 aux_sym__function_type_tails,
       Item 1 sym_function_type]), (1307, [Item 2 sym_assignable_expression]), (1308,
       [Item 1 aux_sym__metadata_repeat1, Item 1 sym__metadata]), (1309,
       [Item 3 sym_scoped_identifier]), (1310, [Item 1 aux_sym__function_type_tails,
       Item 2 sym_function_type]), (1311, [Item 2 sym__function_type_tail,
       Item 2 sym__type_not_void_not_function]), (1312, [Item 1 aux_sym__function_type_tails,
       Item 2 aux_sym__function_type_tails]), (1313,
       [Item 2 aux_sym_multiplicative_expression_repeat1]), (1314,
       [Item 1 aux_sym__metadata_repeat1, Item 2 aux_sym__metadata_repeat1]), (1315,
       [Item 2 sym_unary_expression]), (1316, [Item 2 sym_await_expression]), (1317,
       [Item 2 sym_postfix_expression]), (1318, [Item 1 sym_postfix_operator]), (1319,
       [Item 2 sym__function_type_tail]), (1320, [Item 3 sym__function_type_tail]), (1321,
       [Item 1 aux_sym_multiplicative_expression_repeat1,
       Item 2 aux_sym_multiplicative_expression_repeat1]), (1322, [Item 1 sym__primary,
       Item 1 sym_additive_expression, Item 1 sym_assignable_expression,
       Item 1 sym_bitwise_and_expression, Item 1 sym_bitwise_or_expression,
       Item 1 sym_bitwise_xor_expression, Item 1 sym_equality_expression,
       Item 1 sym_multiplicative_expression, Item 1 sym_relational_expression,
       Item 1 sym_shift_expression]), (1323, [Item 1 sym__real_expression,
       Item 1 sym_multiplicative_expression]), (1324, [Item 1 sym__primary,
       Item 1 sym_additive_expression, Item 1 sym_assignable_expression,
       Item 1 sym_bitwise_and_expression, Item 1 sym_bitwise_or_expression,
       Item 1 sym_bitwise_xor_expression, Item 1 sym_equality_expression,
       Item 1 sym_multiplicative_expression, Item 1 sym_relational_expression,
       Item 1 sym_shift_expression, Item 1 sym_super_formal_parameter]), (1325,
       [Item 1 sym__type_not_void_not_function]), (1326, [Item 1 sym__assignment_operator]),
       (1327, [Item 1 sym_constant_pattern, Item 1 sym_prefix_operator,
       Item 1 sym_unary_expression]), (1328, [Item 1 sym__primary,
       Item 1 sym_additive_expression, Item 1 sym_assignable_expression,
       Item 1 sym_bitwise_and_expression, Item 1 sym_bitwise_or_expression,
       Item 1 sym_bitwise_xor_expression, Item 1 sym_equality_expression,
       Item 1 sym_multiplicative_expression, Item 1 sym_relational_expression,
       Item 1 sym_shift_expression, Item 1 sym_super_formal_parameter]), (1329,
       [Item 1 sym__real_expression, Item 1 sym_multiplicative_expression]), (1330,
       [Item 1 aux_sym_shift_expression_repeat1, Item 2 aux_sym_shift_expression_repeat1]),
       (1331, [Item 1 sym__function_type_tail, Item 1 sym__type_not_void_not_function]), (1332,
       [Item 1 aux_sym_multiplicative_expression_repeat1,
       Item 2 sym_multiplicative_expression]), (1333,
       [Item 1 aux_sym_multiplicative_expression_repeat1,
       Item 2 sym_multiplicative_expression]), (1334, [Item 1 aux_sym_shift_expression_repeat1,
       Item 2 sym_shift_expression]), (1335, [Item 1 sym__primary,
       Item 1 sym_additive_expression, Item 1 sym_assignable_expression,
       Item 1 sym_bitwise_and_expression, Item 1 sym_bitwise_or_expression,
       Item 1 sym_bitwise_xor_expression, Item 1 sym_equality_expression,
       Item 1 sym_multiplicative_expression, Item 1 sym_relational_expression,
       Item 1 sym_shift_expression]), (1336, [Item 1 sym__function_type_tail]), (1337,
       [Item 1 sym__primary, Item 1 sym_additive_expression, Item 1 sym_assignable_expression,
       Item 1 sym_bitwise_and_expression, Item 1 sym_bitwise_or_expression,
       Item 1 sym_bitwise_xor_expression, Item 1 sym_equality_expression,
       Item 1 sym_multiplicative_expression, Item 1 sym_relational_expression,
       Item 1 sym_shift_expression]), (1338, [Item 1 sym__primary,
       Item 1 sym_additive_expression, Item 1 sym_assignable_expression,
       Item 1 sym_bitwise_and_expression, Item 1 sym_bitwise_or_expression,
       Item 1 sym_bitwise_xor_expression, Item 1 sym_equality_expression,
       Item 1 sym_multiplicative_expression, Item 1 sym_relational_expression,
       Item 1 sym_shift_expression]), (1339, [Item 1 sym__primary,
       Item 1 sym_additive_expression, Item 1 sym_assignable_expression,
       Item 1 sym_bitwise_and_expression, Item 1 sym_bitwise_or_expression,
       Item 1 sym_bitwise_xor_expression, Item 1 sym_equality_expression,
       Item 1 sym_multiplicative_expression, Item 1 sym_relational_expression,
       Item 1 sym_shift_expression]), (1340, [Item 1 sym__primary,
       Item 1 sym_additive_expression, Item 1 sym_assignable_expression,
       Item 1 sym_bitwise_and_expression, Item 1 sym_bitwise_or_expression,
       Item 1 sym_bitwise_xor_expression, Item 1 sym_equality_expression,
       Item 1 sym_multiplicative_expression, Item 1 sym_relational_expression,
       Item 1 sym_shift_expression]), (1341, [Item 1 sym__type_name]), (1342,
       [Item 1 sym__primary, Item 1 sym_additive_expression, Item 1 sym_assignable_expression,
       Item 1 sym_bitwise_and_expression, Item 1 sym_bitwise_or_expression,
       Item 1 sym_bitwise_xor_expression, Item 1 sym_equality_expression,
       Item 1 sym_multiplicative_expression, Item 1 sym_relational_expression,
       Item 1 sym_shift_expression]), (1343, [Item 1 sym__primary,
       Item 1 sym_additive_expression, Item 1 sym_assignable_expression,
       Item 1 sym_bitwise_and_expression, Item 1 sym_bitwise_or_expression,
       Item 1 sym_bitwise_xor_expression, Item 1 sym_equality_expression,
       Item 1 sym_multiplicative_expression, Item 1 sym_relational_expression,
       Item 1 sym_shift_expression]), (1344, [Item 1 sym__primary,
       Item 1 sym_additive_expression, Item 1 sym_assignable_expression,
       Item 1 sym_bitwise_and_expression, Item 1 sym_bitwise_or_expression,
       Item 1 sym_bitwise_xor_expression, Item 1 sym_equality_expression,
       Item 1 sym_multiplicative_expression, Item 1 sym_relational_expression,
       Item 1 sym_shift_expression]), (1345, [Item 1 sym__primary,
       Item 1 sym_additive_expression, Item 1 sym_assignable_expression,
       Item 1 sym_bitwise_and_expression, Item 1 sym_bitwise_or_expression,
       Item 1 sym_bitwise_xor_expression, Item 1 sym_equality_expression,
       Item 1 sym_multiplicative_expression, Item 1 sym_relational_expression,
       Item 1 sym_shift_expression]), (1346, [Item 1 sym__primary,
       Item 1 sym_additive_expression, Item 1 sym_assignable_expression,
       Item 1 sym_bitwise_and_expression, Item 1 sym_bitwise_or_expression,
       Item 1 sym_bitwise_xor_expression, Item 1 sym_equality_expression,
       Item 1 sym_multiplicative_expression, Item 1 sym_relational_expression,
       Item 1 sym_shift_expression]), (1347, [Item 1 sym__primary,
       Item 1 sym_additive_expression, Item 1 sym_assignable_expression,
       Item 1 sym_bitwise_and_expression, Item 1 sym_bitwise_or_expression,
       Item 1 sym_bitwise_xor_expression, Item 1 sym_equality_expression,
       Item 1 sym_multiplicative_expression, Item 1 sym_relational_expression,
       Item 1 sym_shift_expression]), (1348, [Item 1 sym__primary,
       Item 1 sym_additive_expression, Item 1 sym_assignable_expression,
       Item 1 sym_bitwise_and_expression, Item 1 sym_bitwise_or_expression,
       Item 1 sym_bitwise_xor_expression, Item 1 sym_equality_expression,
       Item 1 sym_multiplicative_expression, Item 1 sym_relational_expression,
       Item 1 sym_shift_expression, Item 1 sym_super_formal_parameter]), (1349,
       [Item 2 sym__type_not_void_not_function]), (1350, [Item 1 sym_super]), (1351,
       [Item 3 sym__function_type_tail])]"

definition lr_items_10 :: "(TSStateId \<times> lr_item list) list" where
  "lr_items_10 = [
     (1352, [Item 2 sym__function_type_tail]), (1353, [Item 2 sym__function_type_tail,
       Item 2 sym__type_not_void_not_function]), (1354, [Item 2 sym__function_type_tail]),
       (1355, [Item 1 aux_sym_cascade_section_repeat2, Item 3 sym_cascade_section]), (1356,
       [Item 3 sym_type_parameters]), (1357, [Item 1 sym_prefix_operator,
       Item 1 sym_unary_expression]), (1358, [Item 1 sym__type_not_function,
       Item 1 sym__type_not_void]), (1359, [Item 1 sym_prefix_operator,
       Item 1 sym_unary_expression]), (1360, [Item 1 sym__function_builtin_identifier]), (1361,
       [Item 1 aux_sym__metadata_repeat1]), (1362, [Item 1 aux_sym__function_type_tails,
       Item 2 aux_sym__function_type_tails]), (1363, [Item 1 aux_sym__function_type_tails,
       Item 2 sym_function_type]), (1364, [Item 4 sym_type_parameters]), (1365,
       [Item 1 aux_sym_cascade_section_repeat2, Item 4 sym_cascade_section]), (1366,
       [Item 1 aux_sym__function_type_tails, Item 1 sym_function_type]), (1367,
       [Item 1 sym_nullable_type]), (1368, [Item 4 sym__function_type_tail]), (1369,
       [Item 2 sym__function_type_tail]), (1370, [Item 4 sym_annotation]), (1371,
       [Item 1 sym_scoped_identifier, Item 2 sym_annotation]), (1372, [Item 3 sym_annotation]),
       (1373, [Item 2 aux_sym_multiplicative_expression_repeat1]), (1374,
       [Item 2 sym_arguments]), (1375, [Item 3 sym__function_type_tail]), (1376,
       [Item 3 sym_arguments]), (1377, [Item 1 aux_sym_additive_expression_repeat1,
       Item 2 aux_sym_additive_expression_repeat1]), (1378, [Item 2 sym_postfix_expression]),
       (1379, [Item 1 sym_postfix_operator]), (1380, [Item 2 sym_assignable_expression]), (1381,
       [Item 2 sym_await_expression]), (1382, [Item 2 sym_unary_expression]), (1383,
       [Item 1 aux_sym_logical_and_expression_repeat1,
       Item 2 aux_sym_logical_and_expression_repeat1]), (1384,
       [Item 1 aux_sym_logical_or_expression_repeat1,
       Item 2 aux_sym_logical_or_expression_repeat1]), (1385, [Item 1 sym_prefix_operator,
       Item 1 sym_unary_expression]), (1386, [Item 1 aux_sym_additive_expression_repeat1,
       Item 2 sym_additive_expression]), (1387, [Item 1 sym_prefix_operator,
       Item 1 sym_unary_expression]), (1388, [Item 1 sym__declared_identifier,
       Item 1 sym_local_variable_declaration]), (1389, [Item 1 sym_unary_expression]), (1390,
       [Item 1 sym__postfix_expression]), (1391, [Item 1 sym__unary_expression]), (1392,
       [Item 1 aux_sym_logical_and_expression_repeat1, Item 2 sym_logical_and_expression]),
       (1393, [Item 1 aux_sym_logical_or_expression_repeat1, Item 2 sym_logical_or_expression]),
       (1394, [Item 1 sym_prefix_operator, Item 1 sym_unary_expression]), (1395,
       [Item 1 sym_logical_and_operator]), (1396, [Item 2 sym_type_arguments]), (1397,
       [Item 1 sym_shift_operator]), (1398, [Item 1 aux_sym__if_null_expression,
       Item 2 sym_if_null_expression]), (1399, [Item 1 sym_logical_or_operator]), (1400,
       [Item 4 sym_type_arguments]), (1401, [Item 1 sym_additive_operator]), (1402,
       [Item 1 sym__shift_operator]), (1403, [Item 4 sym_parameter_type_list]), (1404,
       [Item 1 sym_logical_or_operator]), (1405, [Item 1 aux_sym_bitwise_or_expression_repeat1,
       Item 2 sym_bitwise_or_expression]), (1406, [Item 5 sym__function_type_tail]), (1407,
       [Item 3 sym_type_arguments]), (1408, [Item 1 aux_sym_bitwise_xor_expression_repeat1,
       Item 2 sym_bitwise_xor_expression]), (1409,
       [Item 1 aux_sym_bitwise_and_expression_repeat1, Item 2 sym_bitwise_and_expression]),
       (1410, [Item 1 aux_sym__if_null_expression, Item 2 aux_sym__if_null_expression]), (1411,
       [Item 6 sym_record_type]), (1412, [Item 1 sym_tilde_operator]), (1413,
       [Item 1 aux_sym_bitwise_or_expression_repeat1,
       Item 2 aux_sym_bitwise_or_expression_repeat1]), (1414, [Item 5 sym_parameter_type_list]),
       (1415, [Item 1 sym__multiplicative_operator]), (1416,
       [Item 1 sym_multiplicative_operator]), (1417,
       [Item 1 aux_sym_bitwise_xor_expression_repeat1,
       Item 2 aux_sym_bitwise_xor_expression_repeat1]), (1418,
       [Item 1 aux_sym_shift_expression_repeat1, Item 2 sym_shift_expression]), (1419,
       [Item 7 sym_record_type]), (1420, [Item 1 aux_sym_program_repeat2,
       Item 2 aux_sym_program_repeat2]), (1421, [Item 1 aux_sym_bitwise_and_expression_repeat1,
       Item 2 aux_sym_bitwise_and_expression_repeat1]), (1422,
       [Item 1 sym__function_type_tail]), (1423, [Item 2 sym__type_not_function,
       Item 2 sym__type_not_void]), (1424, [Item 2 sym__type_dot_identifier]), (1425,
       [Item 1 sym_relational_operator]), (1426, [Item 1 sym__function_type_tail,
       Item 1 sym__type_not_void_not_function]), (1427,
       [Item 3 sym__type_not_void_not_function]), (1428, [Item 2 sym_parameter_type_list]),
       (1429, [Item 6 sym_parameter_type_list]), (1430, [Item 3 sym__function_type_tail]),
       (1431, [Item 1 aux_sym_shift_expression_repeat1,
       Item 2 aux_sym_shift_expression_repeat1]), (1432, [Item 4 sym_record_type]), (1433,
       [Item 8 sym_record_type]), (1434, [Item 1 sym_case_builtin]), (1435,
       [Item 9 sym_record_type]), (1436, [Item 5 sym_record_type]), (1437,
       [Item 3 sym_record_type]), (1438, [Item 1 sym__type_name]), (1439,
       [Item 4 sym__function_type_tail]), (1440, [Item 3 sym_parameter_type_list]), (1441,
       [Item 2 sym__type_not_void_not_function]), (1442, [Item 2 sym__type_name]), (1443,
       [Item 1 sym__type_not_void_not_function]), (1444, [Item 1 sym_logical_and_operator]),
       (1445, [Item 1 sym__type_not_function, Item 1 sym__type_not_void]), (1446,
       [Item 10 sym_record_type]), (1447, [Item 2 sym_record_type]), (1448,
       [Item 1 sym__type_not_void]), (1449, [Item 1 aux_sym__function_type_tails]), (1450,
       [Item 1 sym_prefix_operator]), (1451, [Item 1 sym_negation_operator]), (1452,
       [Item 1 sym_super]), (1453, [Item 2 sym_type_cast_expression]), (1454,
       [Item 1 aux_sym__metadata_repeat1, Item 1 sym__metadata]), (1455,
       [Item 1 aux_sym__function_type_tails, Item 1 sym_function_type]), (1456,
       [Item 1 aux_sym_logical_or_expression_repeat1, Item 2 sym_logical_or_expression]), (1457,
       [Item 1 aux_sym_logical_and_expression_repeat1, Item 2 sym_logical_and_expression]),
       (1458, [Item 4 sym_type_parameters]), (1459, [Item 4 sym__function_type_tail]), (1460,
       [Item 1 aux_sym__function_type_tails, Item 2 sym_function_type]), (1461,
       [Item 1 aux_sym_additive_expression_repeat1, Item 2 sym_additive_expression]), (1462,
       [Item 1 aux_sym__function_type_tails, Item 2 aux_sym__function_type_tails]), (1463,
       [Item 1 sym__function_type_tail, Item 1 sym__type_not_void_not_function]), (1464,
       [Item 1 aux_sym_logical_or_expression_repeat1,
       Item 2 aux_sym_logical_or_expression_repeat1]), (1465,
       [Item 1 aux_sym_logical_and_expression_repeat1,
       Item 2 aux_sym_logical_and_expression_repeat1]), (1466,
       [Item 1 aux_sym_additive_expression_repeat1,
       Item 2 aux_sym_additive_expression_repeat1]), (1467, [Item 3 sym__function_type_tail]),
       (1468, [Item 2 sym__function_type_tail]), (1469, [Item 2 sym_type_test_expression]),
       (1470, [Item 1 aux_sym_string_literal_repeat1, Item 2 aux_sym_string_literal_repeat1]),
       (1471, [Item 2 sym__function_type_tail, Item 2 sym__type_not_void_not_function]), (1472,
       [Item 2 sym__function_type_tail]), (1473, [Item 1 aux_sym__metadata_repeat1,
       Item 2 aux_sym__metadata_repeat1]), (1474, [Item 1 aux_sym_program_repeat3,
       Item 2 aux_sym_program_repeat3]), (1475, [Item 1 aux_sym_string_literal_repeat1,
       Item 1 sym_string_literal]), (1476, [Item 1 sym__type_not_function,
       Item 1 sym__type_not_void]), (1477, [Item 1 sym__real_expression]), (1478,
       [Item 1 aux_sym_cascade_section_repeat2, Item 2 aux_sym_cascade_section_repeat2]), (1479,
       [Item 3 sym_scoped_identifier]), (1480, [Item 1 sym__unary_expression]), (1481,
       [Item 1 sym__postfix_expression]), (1482,
       [Item 2 aux_sym_multiplicative_expression_repeat1]), (1483,
       [Item 1 sym_unary_expression]), (1484,
       [Item 3 sym_assignment_expression_without_cascade]), (1485,
       [Item 5 sym_conditional_expression]), (1486, [Item 3 sym_type_parameters]), (1487,
       [Item 2 sym_unary_expression]), (1488, [Item 2 sym_await_expression]), (1489,
       [Item 1 sym__function_builtin_identifier]), (1490, [Item 1 sym_nullable_type]), (1491,
       [Item 2 sym__type_not_void_not_function]), (1492, [Item 3 sym__function_type_tail]),
       (1493, [Item 2 sym_throw_expression_without_cascade]), (1494,
       [Item 2 sym__function_type_tail]), (1495, [Item 1 sym_postfix_operator]), (1496,
       [Item 2 sym_postfix_expression]), (1497, [Item 1 sym__expression_without_cascade]),
       (1498, [Item 1 sym__function_type_tail]), (1499, [Item 2 sym_assignable_expression]),
       (1500, [Item 2 sym__type_not_void]), (1501, [Item 2 sym_type_cast])]"

definition lr_items_11 :: "(TSStateId \<times> lr_item list) list" where
  "lr_items_11 = [
     (1502, [Item 2 sym_type_test]), (1503, [Item 10 sym_record_type]), (1504,
       [Item 4 sym_type_parameters]), (1505, [Item 6 sym_record_type]), (1506,
       [Item 5 sym_parameter_type_list]), (1507, [Item 5 sym__function_type_tail]), (1508,
       [Item 9 sym_record_type]), (1509, [Item 2 sym_operator_signature]), (1510,
       [Item 2 sym__type_dot_identifier]), (1511, [Item 1 sym__type_not_void_not_function]),
       (1512, [Item 6 sym_parameter_type_list]), (1513,
       [Item 1 aux_sym_bitwise_or_expression_repeat1, Item 2 sym_bitwise_or_expression]), (1514,
       [Item 1 aux_sym_bitwise_xor_expression_repeat1, Item 2 sym_bitwise_xor_expression]),
       (1515, [Item 3 sym_type_parameters]), (1516,
       [Item 1 aux_sym_bitwise_and_expression_repeat1, Item 2 sym_bitwise_and_expression]),
       (1517, [Item 1 aux_sym_shift_expression_repeat1, Item 2 sym_shift_expression]), (1518,
       [Item 2 sym__type_not_function, Item 2 sym__type_not_void]), (1519,
       [Item 5 sym_record_type]), (1520, [Item 1 aux_sym__if_null_expression,
       Item 2 aux_sym__if_null_expression]), (1521, [Item 4 sym_parameter_type_list]), (1522,
       [Item 3 sym_script_tag]), (1523, [Item 7 sym_record_type]), (1524,
       [Item 1 sym__type_not_void]), (1525, [Item 1 aux_sym_bitwise_or_expression_repeat1,
       Item 2 aux_sym_bitwise_or_expression_repeat1]), (1526,
       [Item 1 aux_sym_bitwise_xor_expression_repeat1,
       Item 2 aux_sym_bitwise_xor_expression_repeat1]), (1527,
       [Item 1 aux_sym_bitwise_and_expression_repeat1,
       Item 2 aux_sym_bitwise_and_expression_repeat1]), (1528,
       [Item 4 sym__function_type_tail]), (1529, [Item 1 aux_sym__if_null_expression,
       Item 2 sym_if_null_expression]), (1530, [Item 1 sym__type_not_void_not_function]), (1531,
       [Item 3 sym_parameter_type_list]), (1532, [Item 3 sym__type_not_void_not_function]),
       (1533, [Item 1 sym__type_not_function, Item 1 sym__type_not_void]), (1534,
       [Item 3 sym_record_type]), (1535, [Item 1 aux_sym_shift_expression_repeat1,
       Item 2 sym_shift_expression]), (1536, [Item 1 sym__type_name]), (1537,
       [Item 2 sym_operator_signature]), (1538, [Item 1 sym_declaration,
       Item 1 sym_method_signature]), (1539, [Item 2 sym__type_not_void_not_function]), (1540,
       [Item 2 sym_parameter_type_list]), (1541, [Item 3 sym__function_type_tail]), (1542,
       [Item 1 sym_operator_signature]), (1543, [Item 4 sym_record_type]), (1544,
       [Item 8 sym_record_type]), (1545, [Item 2 sym__type_name]), (1546,
       [Item 1 aux_sym_shift_expression_repeat1, Item 2 aux_sym_shift_expression_repeat1]),
       (1547, [Item 4 sym_type_arguments]), (1548, [Item 2 sym_type_arguments]), (1549,
       [Item 2 sym_record_type]), (1550, [Item 3 sym_type_arguments]), (1551,
       [Item 1 aux_sym__function_type_tails]), (1552, [Item 1 sym_operator_signature]), (1553,
       [Item 1 aux_sym_shift_expression_repeat1, Item 2 aux_sym_shift_expression_repeat1]),
       (1554, [Item 1 aux_sym_logical_and_expression_repeat1,
       Item 2 sym_logical_and_expression]), (1555, [Item 6 sym_import_specification]), (1556,
       [Item 1 sym__function_builtin_identifier]), (1557, [Item 2 sym__function_type_tail]),
       (1558, [Item 3 sym_library_name]), (1559, [Item 3 sym__function_type_tail]), (1560,
       [Item 2 sym_type_test_expression]), (1561, [Item 1 aux_sym_logical_or_expression_repeat1,
       Item 2 aux_sym_logical_or_expression_repeat1]), (1562,
       [Item 1 aux_sym_logical_and_expression_repeat1,
       Item 2 aux_sym_logical_and_expression_repeat1]), (1563,
       [Item 2 sym_type_cast_expression]), (1564, [Item 3 sym_import_specification]), (1565,
       [Item 1 aux_sym__function_type_tails, Item 2 aux_sym__function_type_tails]), (1566,
       [Item 1 sym_nullable_type]), (1567, [Item 5 sym_import_specification]), (1568,
       [Item 1 aux_sym_logical_and_expression_repeat1,
       Item 2 aux_sym_logical_and_expression_repeat1]), (1569, [Item 4 sym_library_export]),
       (1570, [Item 1 aux_sym_logical_or_expression_repeat1, Item 2 sym_logical_or_expression]),
       (1571, [Item 1 aux_sym__metadata_repeat1]), (1572, [Item 1 aux_sym_program_repeat1]),
       (1573, [Item 1 sym__expression_without_cascade]), (1574,
       [Item 1 aux_sym_logical_and_expression_repeat1, Item 2 sym_logical_and_expression]),
       (1575, [Item 1 aux_sym_additive_expression_repeat1,
       Item 2 aux_sym_additive_expression_repeat1]), (1576, [Item 2 sym_library_import]), (1577,
       [Item 1 sym_import_or_export]), (1578, [Item 5 sym_conditional_expression]), (1579,
       [Item 4 sym_library_name]), (1580, [Item 1 aux_sym_additive_expression_repeat1,
       Item 2 aux_sym_additive_expression_repeat1]), (1581, [Item 1 sym_library_import]), (1582,
       [Item 1 aux_sym_additive_expression_repeat1, Item 2 sym_additive_expression]), (1583,
       [Item 2 sym__type_not_void]), (1584, [Item 4 sym_import_specification]), (1585,
       [Item 4 sym_annotation]), (1586, [Item 1 aux_sym__function_type_tails,
       Item 2 sym_function_type]), (1587, [Item 2 sym__function_type_tail,
       Item 2 sym__type_not_void_not_function]), (1588, [Item 1 sym_nullable_type]), (1589,
       [Item 3 sym__function_type_tail]), (1590, [Item 1 sym__type_not_function,
       Item 1 sym__type_not_void]), (1591, [Item 2 sym_throw_expression_without_cascade]),
       (1592, [Item 1 aux_sym_logical_or_expression_repeat1, Item 2 sym_logical_or_expression]),
       (1593, [Item 1 sym__cascade_subsection]), (1594, [Item 2 sym_type_test]), (1595,
       [Item 2 sym_type_cast]), (1596, [Item 3 sym_assignment_expression_without_cascade]),
       (1597, [Item 1 aux_sym_cascade_section_repeat1, Item 2 sym__cascade_subsection]), (1598,
       [Item 7 sym_import_specification]), (1599, [Item 4 sym__function_type_tail]), (1600,
       [Item 2 sym__type_not_void_not_function]), (1601, [Item 4 sym_type_parameters]), (1602,
       [Item 3 sym_type_parameters]), (1603, [Item 2 sym__function_type_tail]), (1604,
       [Item 3 sym_library_export]), (1605, [Item 1 aux_sym__function_type_tails,
       Item 1 sym_function_type]), (1606, [Item 1 aux_sym_additive_expression_repeat1,
       Item 2 sym_additive_expression]), (1607, [Item 2 sym__function_type_tail]), (1608,
       [Item 1 aux_sym_logical_or_expression_repeat1,
       Item 2 aux_sym_logical_or_expression_repeat1]), (1609, [Item 1 sym__real_expression]),
       (1610, [Item 1 sym__semicolon]), (1611, [Item 3 sym_annotation]), (1612,
       [Item 2 sym__type_name]), (1613, [Item 5 sym_library_export]), (1614,
       [Item 1 sym__type_name]), (1615, [Item 1 aux_sym__function_type_tails]), (1616,
       [Item 3 sym__function_type_tail]), (1617, [Item 1 aux_sym_bitwise_and_expression_repeat1,
       Item 2 sym_bitwise_and_expression]), (1618, [Item 3 sym__type_not_void_not_function]),
       (1619, [Item 10 sym_record_type]), (1620, [Item 2 sym_parameter_type_list]), (1621,
       [Item 3 sym_parameter_type_list]), (1622, [Item 3 sym_type_arguments]), (1623,
       [Item 3 sym_record_type]), (1624, [Item 9 sym_record_type]), (1625,
       [Item 1 sym__function_builtin_identifier]), (1626,
       [Item 1 aux_sym_bitwise_xor_expression_repeat1, Item 2 sym_bitwise_xor_expression]),
       (1627, [Item 1 sym__type_not_function, Item 1 sym__type_not_void]), (1628,
       [Item 2 sym__type_not_void_not_function]), (1629, [Item 8 sym_record_type]), (1630,
       [Item 1 aux_sym__if_null_expression, Item 2 aux_sym__if_null_expression]), (1631,
       [Item 2 sym__type_not_function, Item 2 sym__type_not_void]), (1632,
       [Item 5 sym_record_type]), (1633, [Item 6 sym_parameter_type_list]), (1634,
       [Item 4 sym_type_arguments]), (1635, [Item 4 sym__function_type_tail]), (1636,
       [Item 3 sym_type_arguments]), (1637, [Item 7 sym_record_type]), (1638,
       [Item 5 sym_parameter_type_list]), (1639, [Item 4 sym__function_type_tail]), (1640,
       [Item 2 sym_type_arguments]), (1641, [Item 2 sym__type_dot_identifier]), (1642,
       [Item 2 sym_type_arguments]), (1643, [Item 6 sym_record_type]), (1644,
       [Item 5 sym__function_type_tail]), (1645, [Item 2 sym__type_name]), (1646,
       [Item 4 sym_type_arguments]), (1647, [Item 3 sym__function_type_tail]), (1648,
       [Item 1 sym__type_not_void]), (1649, [Item 4 sym_record_type]), (1650,
       [Item 2 sym__type_dot_identifier]), (1651, [Item 4 sym_parameter_type_list])]"

definition lr_items_12 :: "(TSStateId \<times> lr_item list) list" where
  "lr_items_12 = [
     (1652, [Item 2 sym_record_type]), (1653, [Item 1 aux_sym_bitwise_and_expression_repeat1,
       Item 2 aux_sym_bitwise_and_expression_repeat1]), (1654,
       [Item 1 aux_sym_bitwise_xor_expression_repeat1,
       Item 2 aux_sym_bitwise_xor_expression_repeat1]), (1655,
       [Item 1 aux_sym_bitwise_or_expression_repeat1,
       Item 2 aux_sym_bitwise_or_expression_repeat1]), (1656,
       [Item 1 aux_sym_bitwise_and_expression_repeat1,
       Item 2 aux_sym_bitwise_and_expression_repeat1]), (1657,
       [Item 1 aux_sym_bitwise_xor_expression_repeat1,
       Item 2 aux_sym_bitwise_xor_expression_repeat1]), (1658,
       [Item 1 aux_sym_bitwise_or_expression_repeat1,
       Item 2 aux_sym_bitwise_or_expression_repeat1]), (1659,
       [Item 1 aux_sym__if_null_expression, Item 2 aux_sym__if_null_expression]), (1660,
       [Item 1 aux_sym_bitwise_or_expression_repeat1, Item 2 sym_bitwise_or_expression]), (1661,
       [Item 1 aux_sym__if_null_expression, Item 2 sym_if_null_expression]), (1662,
       [Item 1 aux_sym__if_null_expression, Item 2 sym_if_null_expression]), (1663,
       [Item 1 aux_sym_bitwise_or_expression_repeat1, Item 2 sym_bitwise_or_expression]), (1664,
       [Item 2 sym__type_not_void_not_function]), (1665,
       [Item 1 aux_sym_bitwise_xor_expression_repeat1, Item 2 sym_bitwise_xor_expression]),
       (1666, [Item 1 aux_sym_bitwise_and_expression_repeat1,
       Item 2 sym_bitwise_and_expression]), (1667, [Item 2 sym__function_type_tail]), (1668,
       [Item 1 sym__external_and_static, Item 1 sym_declaration]), (1669,
       [Item 2 sym_type_cast_expression]), (1670, [Item 8 sym_record_type]), (1671,
       [Item 1 aux_sym_program_repeat2]), (1672, [Item 5 sym_record_type]), (1673,
       [Item 1 sym_parameter_type_list]), (1674, [Item 4 sym_part_directive]), (1675,
       [Item 3 sym_assignment_expression_without_cascade]), (1676,
       [Item 2 sym_parameter_type_list]), (1677, [Item 2 sym_type_test]), (1678,
       [Item 4 sym_record_type]), (1679, [Item 1 sym__real_expression]), (1680,
       [Item 4 sym__function_type_tail]), (1681, [Item 3 sym_parameter_type_list]), (1682,
       [Item 5 sym_conditional_expression]), (1683, [Item 5 sym_parameter_type_list]), (1684,
       [Item 3 sym__function_type_tail]), (1685, [Item 7 sym_record_type]), (1686,
       [Item 1 aux_sym_parameter_type_list_repeat1, Item 3 sym_parameter_type_list]), (1687,
       [Item 3 sym_record_type]), (1688, [Item 1 aux_sym_parameter_type_list_repeat1,
       Item 4 sym_parameter_type_list]), (1689, [Item 1 aux_sym_parameter_type_list_repeat1,
       Item 3 sym_parameter_type_list]), (1690, [Item 1 aux_sym_parameter_type_list_repeat1,
       Item 4 sym_parameter_type_list]), (1691, [Item 1 aux_sym_parameter_type_list_repeat1,
       Item 4 sym_parameter_type_list]), (1692, [Item 2 sym_record_type]), (1693,
       [Item 1 aux_sym_parameter_type_list_repeat1, Item 3 sym_parameter_type_list]), (1694,
       [Item 9 sym_record_type]), (1695, [Item 1 sym_parameter_type_list]), (1696,
       [Item 2 sym_throw_expression_without_cascade]), (1697, [Item 6 sym_parameter_type_list]),
       (1698, [Item 1 aux_sym_parameter_type_list_repeat1, Item 3 sym_parameter_type_list]),
       (1699, [Item 1 aux_sym_parameter_type_list_repeat1, Item 3 sym_parameter_type_list]),
       (1700, [Item 6 sym_record_type]), (1701, [Item 1 sym_parameter_type_list]), (1702,
       [Item 10 sym_record_type]), (1703, [Item 5 sym__function_type_tail]), (1704,
       [Item 1 aux_sym__function_type_tails]), (1705,
       [Item 1 aux_sym_parameter_type_list_repeat1, Item 4 sym_parameter_type_list]), (1706,
       [Item 4 sym_parameter_type_list]), (1707, [Item 1 aux_sym_parameter_type_list_repeat1,
       Item 4 sym_parameter_type_list]), (1708, [Item 2 sym_type_cast]), (1709,
       [Item 2 sym_type_test_expression]), (1710, [Item 1 sym__expression_without_cascade]),
       (1711, [Item 2 sym__type_not_void]), (1712, [Item 1 aux_sym_parameter_type_list_repeat1,
       Item 3 sym_parameter_type_list]), (1713, [Item 3 sym_part_directive]), (1714,
       [Item 1 sym_parameter_type_list]), (1715, [Item 1 aux_sym_parameter_type_list_repeat1,
       Item 4 sym_parameter_type_list]), (1716, [Item 1 sym_parameter_type_list]), (1717,
       [Item 1 sym_parameter_type_list]), (1718, [Item 2 sym__type_not_void_not_function]),
       (1719, [Item 1 aux_sym_string_literal_repeat1, Item 2 aux_sym_string_literal_repeat1]),
       (1720, [Item 1 aux_sym_string_literal_repeat1, Item 1 sym_string_literal]), (1721,
       [Item 3 sym__type_not_void_not_function]), (1722, [Item 1 sym__declared_identifier]),
       (1723, [Item 3 sym_part_of_directive]), (1724, [Item 4 sym_part_of_directive]), (1725,
       [Item 1 aux_sym_program_repeat3]), (1726, [Item 1 sym__native]), (1727,
       [Item 1 sym__for_loop_parts, Item 1 sym__var_or_type,
       Item 1 sym_pattern_variable_declaration]), (1728, [Item 5 sym_class_definition]), (1729,
       [Item 4 sym_extension_declaration]), (1730, [Item 3 sym_extension_body]), (1731,
       [Item 8 sym_mixin_declaration]), (1732, [Item 4 sym__top_level_definition]), (1733,
       [Item 6 sym_extension_declaration]), (1734, [Item 7 sym_enum_declaration]), (1735,
       [Item 6 sym_enum_declaration]), (1736, [Item 6 sym_class_definition]), (1737,
       [Item 5 sym_mixin_application_class]), (1738, [Item 4 sym_class_definition]), (1739,
       [Item 7 sym_extension_declaration]), (1740, [Item 7 sym_class_definition]), (1741,
       [Item 4 sym_class_definition]), (1742, [Item 7 sym_mixin_declaration]), (1743,
       [Item 6 sym_extension_declaration]), (1744, [Item 4 sym_mixin_application_class]), (1745,
       [Item 7 sym_type_alias]), (1746, [Item 5 sym_class_definition]), (1747,
       [Item 5 sym_class_definition]), (1748, [Item 5 sym_class_definition]), (1749,
       [Item 6 sym_class_definition]), (1750, [Item 3 sym_enum_declaration]), (1751,
       [Item 6 sym_extension_declaration]), (1752, [Item 5 sym_enum_declaration]), (1753,
       [Item 2 sym__top_level_definition]), (1754, [Item 5 sym_extension_declaration]), (1755,
       [Item 4 sym_class_definition]), (1756, [Item 6 sym_class_definition]), (1757,
       [Item 4 sym_enum_declaration]), (1758, [Item 6 sym_class_definition]), (1759,
       [Item 1 sym__final_const_var_or_type, Item 1 sym__for_loop_parts,
       Item 1 sym_pattern_variable_declaration]), (1760, [Item 5 sym__top_level_definition]),
       (1761, [Item 6 sym_mixin_declaration]), (1762, [Item 6 sym_type_alias]), (1763,
       [Item 4 sym_class_definition]), (1764, [Item 1 sym__final_const_var_or_type,
       Item 1 sym_pattern_variable_declaration]), (1765, [Item 4 sym_type_alias]), (1766,
       [Item 5 sym_class_definition]), (1767, [Item 6 sym__top_level_definition]), (1768,
       [Item 4 sym_mixin_declaration]), (1769, [Item 1 sym__top_level_definition]), (1770,
       [Item 3 sym_mixin_declaration]), (1771, [Item 1 sym__var_or_type,
       Item 1 sym_pattern_variable_declaration]), (1772, [Item 3 sym__top_level_definition]),
       (1773, [Item 5 sym_class_definition]), (1774, [Item 1 aux_sym_program_repeat4]), (1775,
       [Item 4 sym_enum_declaration]), (1776, [Item 5 sym_extension_declaration]), (1777,
       [Item 2 sym_class_definition]), (1778, [Item 5 sym_extension_declaration]), (1779,
       [Item 6 sym_enum_body]), (1780, [Item 5 sym_enum_body]), (1781, [Item 5 sym_type_alias]),
       (1782, [Item 2 sym_extension_body]), (1783, [Item 4 sym_enum_body]), (1784,
       [Item 3 sym_class_definition]), (1785, [Item 7 sym_enum_body]), (1786,
       [Item 5 sym_enum_declaration]), (1787, [Item 9 sym_mixin_declaration]), (1788,
       [Item 6 sym_enum_declaration]), (1789, [Item 3 sym_class_body]), (1790,
       [Item 3 sym_enum_body]), (1791, [Item 3 sym_class_definition]), (1792,
       [Item 2 sym_class_body]), (1793, [Item 5 sym_mixin_declaration]), (1794,
       [Item 1 sym__declared_identifier, Item 1 sym__function_formal_parameter,
       Item 1 sym__simple_formal_parameter]), (1795, [Item 1 sym__declared_identifier]), (1796,
       [Item 1 sym__type, Item 1 sym_function_type]), (1797, [Item 1 sym__external,
       Item 1 sym_declaration]), (1798, [Item 1 sym__declared_identifier,
       Item 1 sym__function_formal_parameter, Item 1 sym__simple_formal_parameter,
       Item 2 sym__declared_identifier]), (1799, [Item 1 sym__declared_identifier,
       Item 2 sym__declared_identifier]), (1800, [Item 1 aux_sym_named_parameter_types_repeat1,
       Item 3 sym_named_parameter_types]), (1801, [Item 1 aux_sym_named_parameter_types_repeat1,
       Item 4 sym_named_parameter_types])]"

definition lr_items_13 :: "(TSStateId \<times> lr_item list) list" where
  "lr_items_13 = [
     (1802, [Item 2 sym__declared_identifier]), (1803,
       [Item 1 aux_sym_named_parameter_types_repeat1]), (1804, [Item 1 sym_type_arguments,
       Item 1 sym_type_parameters]), (1805, [Item 1 sym__type_not_function]), (1806,
       [Item 1 sym__final_const_var_or_type, Item 1 sym_const_object_expression,
       Item 1 sym_list_literal, Item 1 sym_record_literal, Item 1 sym_set_or_map_literal]),
       (1807, [Item 1 sym__final_const_var_or_type, Item 1 sym_const_object_expression,
       Item 1 sym_constant_pattern, Item 1 sym_list_literal, Item 1 sym_record_literal,
       Item 1 sym_set_or_map_literal]), (1808, [Item 2 sym_part_of_directive]), (1809,
       [Item 1 sym_part_of_directive]), (1810, [Item 1 sym_named_parameter_types]), (1811,
       [Item 2 sym__string_literal_single_quotes_multiple]), (1812,
       [Item 3 sym__raw_string_literal_double_quotes]), (1813,
       [Item 1 aux_sym_record_type_repeat2, Item 7 sym_record_type]), (1814,
       [Item 1 aux_sym_parameter_type_list_repeat1,
       Item 4 sym_optional_positional_parameter_types]), (1815, [Item 1 sym_record_type]),
       (1816, [Item 1 aux_sym_record_type_repeat2, Item 5 sym_record_type]), (1817,
       [Item 1 sym_import_specification]), (1818, [Item 1 sym__top_level_definition]), (1819,
       [Item 1 aux_sym_record_type_repeat2, Item 7 sym_record_type]), (1820,
       [Item 1 aux_sym_record_type_repeat1, Item 3 sym_record_type]), (1821,
       [Item 1 aux_sym_record_type_repeat1, Item 4 sym_record_type]), (1822,
       [Item 2 sym__string_literal_double_quotes]), (1823, [Item 1 aux_sym_record_type_repeat1,
       Item 3 sym_record_type]), (1824, [Item 1 aux_sym_record_type_repeat1,
       Item 4 sym_record_type]), (1825,
       [Item 3 sym__raw_string_literal_single_quotes_multiple]), (1826,
       [Item 3 sym__raw_string_literal_double_quotes_multiple]), (1827,
       [Item 3 sym__raw_string_literal_single_quotes]), (1828,
       [Item 3 sym__string_literal_single_quotes_multiple]), (1829,
       [Item 3 sym__string_literal_double_quotes_multiple]), (1830,
       [Item 1 aux_sym_record_type_repeat1, Item 3 sym_record_type]), (1831,
       [Item 3 sym__string_literal_single_quotes]), (1832,
       [Item 3 sym__string_literal_double_quotes]), (1833, [Item 1 sym_record_type]), (1834,
       [Item 1 aux_sym_record_type_repeat2, Item 8 sym_record_type]), (1835,
       [Item 1 aux_sym_record_type_repeat2, Item 7 sym_record_type]), (1836,
       [Item 1 sym_record_type]), (1837, [Item 1 aux_sym_record_type_repeat1,
       Item 4 sym_record_type]), (1838, [Item 1 aux_sym_record_type_repeat2,
       Item 6 sym_record_type]), (1839, [Item 1 sym_record_type]), (1840,
       [Item 2 sym_library_export]), (1841, [Item 1 aux_sym_record_type_repeat2,
       Item 4 sym_record_type]), (1842, [Item 1 aux_sym_record_type_repeat2,
       Item 6 sym_record_type]), (1843, [Item 1 aux_sym_record_type_repeat2,
       Item 8 sym_record_type]), (1844, [Item 1 aux_sym_record_type_repeat2,
       Item 5 sym_record_type]), (1845, [Item 1 aux_sym_record_type_repeat2,
       Item 4 sym_record_type]), (1846, [Item 1 aux_sym_record_type_repeat1,
       Item 4 sym_record_type]), (1847, [Item 1 aux_sym_record_type_repeat2,
       Item 4 sym_record_type]), (1848, [Item 1 sym__type]), (1849,
       [Item 1 aux_sym_record_type_repeat1, Item 3 sym_record_type]), (1850,
       [Item 2 sym__raw_string_literal_single_quotes_multiple]), (1851,
       [Item 1 aux_sym_record_type_repeat1, Item 4 sym_record_type]), (1852,
       [Item 1 aux_sym_record_type_repeat1, Item 3 sym_record_type]), (1853,
       [Item 2 sym__raw_string_literal_double_quotes_multiple]), (1854,
       [Item 1 aux_sym_string_literal_repeat1]), (1855, [Item 1 aux_sym_record_type_repeat2,
       Item 5 sym_record_type]), (1856, [Item 1 sym_record_type]), (1857,
       [Item 1 aux_sym_record_type_repeat2, Item 8 sym_record_type]), (1858,
       [Item 1 aux_sym_record_type_repeat2, Item 7 sym_record_type]), (1859,
       [Item 1 aux_sym_record_type_repeat2, Item 6 sym_record_type]), (1860,
       [Item 2 sym__raw_string_literal_single_quotes]), (1861,
       [Item 1 aux_sym_record_type_repeat2, Item 7 sym_record_type]), (1862,
       [Item 1 aux_sym_record_type_repeat1, Item 4 sym_record_type]), (1863,
       [Item 1 sym_record_type]), (1864, [Item 1 aux_sym_record_type_repeat2,
       Item 6 sym_record_type]), (1865, [Item 1 aux_sym_record_type_repeat2,
       Item 5 sym_record_type]), (1866, [Item 1 aux_sym_parameter_type_list_repeat1,
       Item 3 sym_optional_positional_parameter_types]), (1867,
       [Item 1 aux_sym_record_type_repeat2, Item 8 sym_record_type]), (1868,
       [Item 2 sym__raw_string_literal_double_quotes]), (1869, [Item 1 sym_library_export]),
       (1870, [Item 1 aux_sym_record_type_repeat2, Item 4 sym_record_type]), (1871,
       [Item 1 aux_sym_record_type_repeat2, Item 4 sym_record_type]), (1872,
       [Item 1 aux_sym_record_type_repeat2, Item 5 sym_record_type]), (1873,
       [Item 1 aux_sym_record_type_repeat2, Item 6 sym_record_type]), (1874,
       [Item 1 aux_sym_record_type_repeat2, Item 8 sym_record_type]), (1875,
       [Item 1 aux_sym_record_type_repeat2, Item 8 sym_record_type]), (1876,
       [Item 1 aux_sym_record_type_repeat2, Item 7 sym_record_type]), (1877,
       [Item 1 aux_sym_record_type_repeat2, Item 6 sym_record_type]), (1878,
       [Item 1 aux_sym_record_type_repeat2, Item 4 sym_record_type]), (1879,
       [Item 2 sym__string_literal_double_quotes_multiple]), (1880,
       [Item 2 sym__top_level_definition]), (1881, [Item 1 aux_sym_record_type_repeat1,
       Item 3 sym_record_type]), (1882, [Item 1 aux_sym_record_type_repeat2,
       Item 5 sym_record_type]), (1883, [Item 2 sym__string_literal_single_quotes]), (1884,
       [Item 2 sym_record_type]), (1885, [Item 1 sym_part_directive]), (1886,
       [Item 4 sym_record_type]), (1887, [Item 1 sym_optional_positional_parameter_types]),
       (1888, [Item 2 sym_record_type]), (1889, [Item 5 sym_record_type]), (1890,
       [Item 5 sym_record_type]), (1891, [Item 5 sym_record_type]), (1892,
       [Item 4 sym_record_type]), (1893, [Item 2 sym_part_directive]), (1894,
       [Item 1 sym_declaration]), (1895, [Item 5 sym_record_type]), (1896,
       [Item 1 sym__type_not_function]), (1897, [Item 4 sym_record_type]), (1898,
       [Item 1 aux_sym_parameter_type_list_repeat1]), (1899, [Item 2 sym_record_type]), (1900,
       [Item 5 sym_record_type]), (1901, [Item 1 aux_sym_record_type_repeat2]), (1902,
       [Item 4 sym_record_type]), (1903, [Item 4 sym_record_type]), (1904,
       [Item 1 sym__function_formal_parameter, Item 1 sym__simple_formal_parameter,
       Item 1 sym__type_name]), (1905, [Item 2 sym__type_not_function]), (1906,
       [Item 2 sym_record_type]), (1907, [Item 2 sym_record_type]), (1908,
       [Item 1 sym__native]), (1909, [Item 2 sym_configuration_uri]), (1910,
       [Item 2 sym_record_type]), (1911, [Item 1 sym__operator]), (1912,
       [Item 5 sym_record_type]), (1913, [Item 4 sym_record_type]), (1914,
       [Item 1 sym_declaration]), (1915, [Item 1 sym__final_const_var_or_type]), (1916,
       [Item 1 sym_const_object_expression, Item 1 sym_list_literal, Item 1 sym_record_literal,
       Item 1 sym_set_or_map_literal]), (1917, [Item 1 sym_const_object_expression,
       Item 1 sym_list_literal, Item 1 sym_record_literal, Item 1 sym_set_or_map_literal]),
       (1918, [Item 1 sym_assignable_expression]), (1919, [Item 2 sym__type]), (1920,
       [Item 1 sym_assignable_expression]), (1921, [Item 1 sym__type_name,
       Item 1 sym_constant_pattern]), (1922, [Item 2 sym_uri_test]), (1923,
       [Item 1 sym_const_object_expression, Item 1 sym_constant_pattern,
       Item 1 sym_list_literal, Item 1 sym_record_literal, Item 1 sym_set_or_map_literal]),
       (1924, [Item 1 sym_const_object_expression, Item 1 sym_list_literal,
       Item 1 sym_record_literal, Item 1 sym_set_or_map_literal]), (1925,
       [Item 1 sym_assignable_expression]), (1926, [Item 1 sym_assignable_expression]), (1927,
       [Item 1 sym_const_object_expression, Item 1 sym_list_literal, Item 1 sym_record_literal,
       Item 1 sym_set_or_map_literal]), (1928, [Item 1 aux_sym_record_type_repeat1]), (1929,
       [Item 1 sym_assignable_expression]), (1930, [Item 2 sym_declaration]), (1931,
       [Item 1 sym_assignment_expression_without_cascade, Item 1 sym_postfix_expression]),
       (1932, [Item 1 sym_assignment_expression, Item 1 sym_postfix_expression]), (1933,
       [Item 1 sym__type_name, Item 2 sym__function_formal_parameter,
       Item 2 sym__simple_formal_parameter]), (1934, [Item 2 sym__top_level_definition]), (1935,
       [Item 1 sym_const_object_expression, Item 1 sym_constant_pattern]), (1936,
       [Item 1 sym_assignment_expression_without_cascade, Item 1 sym_postfix_expression]),
       (1937, [Item 1 aux_sym__assignable_selector_part_repeat1,
       Item 1 sym__assignable_selector_part]), (1938,
       [Item 1 sym_assignment_expression_without_cascade, Item 1 sym_postfix_expression]),
       (1939, [Item 1 sym_assignment_expression_without_cascade,
       Item 1 sym_postfix_expression]), (1940, [Item 1 sym_assignment_expression,
       Item 1 sym_postfix_expression]), (1941,
       [Item 1 aux_sym__assignable_selector_part_repeat1,
       Item 1 sym__assignable_selector_part]), (1942,
       [Item 1 aux_sym__assignable_selector_part_repeat1,
       Item 1 sym__assignable_selector_part]), (1943,
       [Item 1 sym_assignment_expression_without_cascade, Item 1 sym_postfix_expression]),
       (1944, [Item 1 aux_sym__assignable_selector_part_repeat1,
       Item 1 sym__assignable_selector_part]), (1945,
       [Item 1 aux_sym__assignable_selector_part_repeat1,
       Item 2 aux_sym__assignable_selector_part_repeat1]), (1946, [Item 1 sym_declaration]),
       (1947, [Item 3 aux_sym_enum_body_repeat2]), (1948,
       [Item 1 sym_assignment_expression_without_cascade, Item 1 sym_postfix_expression]),
       (1949, [Item 1 sym_assignment_expression_without_cascade,
       Item 1 sym_postfix_expression]), (1950, [Item 2 sym_declaration]), (1951,
       [Item 1 sym_assignment_expression_without_cascade, Item 1 sym_postfix_expression])]"

definition lr_items_14 :: "(TSStateId \<times> lr_item list) list" where
  "lr_items_14 = [
     (1952, [Item 1 sym_assignment_expression, Item 1 sym_postfix_expression]), (1953,
       [Item 3 aux_sym_extension_body_repeat1]), (1954, [Item 2 aux_sym_enum_body_repeat2]),
       (1955, [Item 1 sym_assignment_expression, Item 1 sym_postfix_expression]), (1956,
       [Item 1 sym_assignment_expression, Item 1 sym_postfix_expression]), (1957,
       [Item 1 sym__top_level_definition]), (1958,
       [Item 1 aux_sym__assignable_selector_part_repeat1,
       Item 1 sym__assignable_selector_part]), (1959, [Item 2 aux_sym_extension_body_repeat1]),
       (1960, [Item 1 sym_assignment_expression_without_cascade,
       Item 1 sym_postfix_expression]), (1961, [Item 1 sym__named_parameter_type]), (1962,
       [Item 1 aux_sym__expression_repeat1]), (1963, [Item 5 sym_cascade_section]), (1964,
       [Item 1 sym__expression_without_cascade]), (1965, [Item 4 sym_cascade_section]), (1966,
       [Item 2 sym__cascade_assignment_section]), (1967,
       [Item 2 sym_throw_expression_without_cascade]), (1968,
       [Item 3 sym_assignment_expression_without_cascade]), (1969, [Item 2 sym_declaration]),
       (1970, [Item 3 sym_cascade_section]), (1971, [Item 2 sym__top_level_definition]), (1972,
       [Item 2 sym__top_level_definition]), (1973, [Item 2 sym__string_literal_single_quotes]),
       (1974, [Item 2 sym__string_literal_double_quotes_multiple]), (1975,
       [Item 3 sym__raw_string_literal_double_quotes]), (1976, [Item 1 sym__var_or_type]),
       (1977, [Item 3 sym__string_literal_single_quotes_multiple]), (1978,
       [Item 3 sym__string_literal_double_quotes_multiple]), (1979,
       [Item 3 sym__string_literal_single_quotes]), (1980,
       [Item 3 sym__string_literal_double_quotes]), (1981, [Item 3 sym__top_level_definition]),
       (1982, [Item 3 sym__raw_string_literal_single_quotes_multiple]), (1983,
       [Item 1 sym_declaration]), (1984, [Item 1 sym__final_const_var_or_type]), (1985,
       [Item 1 sym__type_not_function, Item 1 sym__type_not_void]), (1986,
       [Item 2 sym_declaration]), (1987, [Item 2 sym_declaration]), (1988,
       [Item 3 sym_declaration]), (1989, [Item 1 sym__top_level_definition]), (1990,
       [Item 2 sym_assignable_expression]), (1991,
       [Item 2 sym__raw_string_literal_single_quotes_multiple]), (1992,
       [Item 1 sym__final_const_var_or_type, Item 1 sym__final_var_or_type]), (1993,
       [Item 2 sym__final_const_var_or_type]), (1994, [Item 1 aux_sym_string_literal_repeat1]),
       (1995, [Item 1 sym__final_var_or_type, Item 1 sym__var_or_type]), (1996,
       [Item 2 sym__raw_string_literal_double_quotes_multiple]), (1997,
       [Item 3 sym__raw_string_literal_double_quotes_multiple]), (1998,
       [Item 2 sym__raw_string_literal_single_quotes]), (1999,
       [Item 2 sym__raw_string_literal_double_quotes]), (2000,
       [Item 1 sym__function_formal_parameter, Item 1 sym__simple_formal_parameter,
       Item 1 sym__type_name]), (2001, [Item 2 sym__string_literal_double_quotes]), (2002,
       [Item 2 sym__string_literal_single_quotes_multiple]), (2003,
       [Item 3 sym__raw_string_literal_single_quotes]), (2004,
       [Item 1 sym__type_not_void_not_function, Item 1 sym_constructor_invocation,
       Item 1 sym_constructor_tearoff, Item 1 sym_object_pattern]), (2005,
       [Item 3 sym_mixin_declaration]), (2006, [Item 2 sym_mixin_application_class]), (2007,
       [Item 1 sym__named_parameter_type]), (2008, [Item 5 sym__strict_formal_parameter_list]),
       (2009, [Item 2 sym__formal_parameter_part]), (2010, [Item 1 sym_type_arguments]), (2011,
       [Item 2 sym__strict_formal_parameter_list]), (2012, [Item 5 sym_map_pattern]), (2013,
       [Item 2 sym__named_parameter_type]), (2014, [Item 4 sym_object_pattern]), (2015,
       [Item 5 sym_list_pattern]), (2016, [Item 1 sym_formal_parameter_list]), (2017,
       [Item 5 sym_record_pattern]), (2018, [Item 1 sym__identifier_or_new,
       Item 1 sym__type_name]), (2019, [Item 1 sym_type_arguments]), (2020,
       [Item 1 sym__formal_parameter_part]), (2021, [Item 3 sym_declaration]), (2022,
       [Item 3 sym__parenthesized_pattern]), (2023, [Item 1 sym_interfaces]), (2024,
       [Item 4 sym__strict_formal_parameter_list]), (2025, [Item 3 sym_list_pattern]), (2026,
       [Item 3 sym_record_pattern]), (2027, [Item 1 sym_mixins]), (2028,
       [Item 2 sym_list_pattern]), (2029, [Item 2 sym_map_pattern]), (2030,
       [Item 1 sym_type_arguments]), (2031, [Item 3 sym__strict_formal_parameter_list]), (2032,
       [Item 1 sym__pattern_field, Item 1 sym__type_name, Item 1 sym_constant_pattern]), (2033,
       [Item 1 sym_normal_parameter_type]), (2034, [Item 7 sym_object_pattern]), (2035,
       [Item 1 sym_type_arguments]), (2036, [Item 6 sym_mixin_declaration]), (2037,
       [Item 2 sym__strict_formal_parameter_list, Item 2 sym_record_type]), (2038,
       [Item 1 sym__type_name, Item 1 sym_constructor_signature,
       Item 1 sym_function_signature]), (2039, [Item 1 sym__pattern_field,
       Item 1 sym__type_name, Item 1 sym_constant_pattern]), (2040,
       [Item 5 sym_mixin_declaration]), (2041, [Item 1 sym__type_name,
       Item 1 sym_constant_pattern, Item 1 sym_label]), (2042, [Item 1 sym_type_arguments]),
       (2043, [Item 1 sym_record_type_named_field]), (2044, [Item 1 sym_type_arguments]), (2045,
       [Item 5 sym_object_pattern]), (2046, [Item 3 sym_map_pattern]), (2047,
       [Item 4 sym_record_pattern]), (2048, [Item 1 sym_type_arguments]), (2049,
       [Item 4 sym_map_pattern]), (2050, [Item 4 sym_list_pattern]), (2051,
       [Item 3 sym_mixin_application_class]), (2052, [Item 6 sym_object_pattern]), (2053,
       [Item 1 sym_type_arguments]), (2054, [Item 4 sym_mixin_declaration]), (2055,
       [Item 6 sym_map_pattern]), (2056, [Item 6 sym_list_pattern]), (2057,
       [Item 2 sym_extension_declaration]), (2058, [Item 1 sym_type_test]), (2059,
       [Item 1 sym_type_bound]), (2060, [Item 1 sym__type_name, Item 1 sym_function_signature]),
       (2061, [Item 1 aux_sym__type_not_void_list_repeat1]), (2062,
       [Item 5 sym_redirecting_factory_constructor_signature]), (2063, [Item 1 sym__type_name,
       Item 1 sym_function_signature]), (2064, [Item 1 sym_type_cast]), (2065,
       [Item 5 sym_type_alias]), (2066, [Item 1 sym_type_test]), (2067,
       [Item 2 sym__type_not_function, Item 2 sym__type_not_void]), (2068,
       [Item 4 sym_redirecting_factory_constructor_signature]), (2069,
       [Item 4 sym_extension_declaration]), (2070, [Item 1 sym_superclass]), (2071,
       [Item 4 sym_extension_declaration]), (2072, [Item 4 sym_extension_declaration]), (2073,
       [Item 2 sym_type_alias]), (2074, [Item 1 sym_new_expression]), (2075,
       [Item 1 aux_sym_type_arguments_repeat1]), (2076, [Item 5 sym_extension_declaration]),
       (2077, [Item 1 sym_type_cast]), (2078, [Item 1 sym__identifier_or_new]), (2079,
       [Item 1 sym_new_expression]), (2080, [Item 4 sym_type_alias]), (2081,
       [Item 3 sym_type_alias]), (2082, [Item 1 sym_type_alias]), (2083, [Item 1 sym__on_part]),
       (2084, [Item 3 sym_extension_declaration]), (2085, [Item 3 sym_extension_declaration]),
       (2086, [Item 1 sym_type_cast]), (2087, [Item 1 sym_type_test]), (2088,
       [Item 1 sym_record_type_field]), (2089, [Item 1 sym_type_test]), (2090,
       [Item 1 sym_type_cast]), (2091, [Item 1 sym_new_expression]), (2092,
       [Item 3 sym_extension_declaration]), (2093, [Item 2 sym_cast_pattern]), (2094,
       [Item 6 sym_redirecting_factory_constructor_signature]), (2095,
       [Item 1 aux_sym__expression_repeat1, Item 2 sym__expression]), (2096,
       [Item 1 sym_type_cast]), (2097, [Item 1 sym_type_test]), (2098,
       [Item 1 sym_new_expression]), (2099, [Item 1 sym__type_not_function,
       Item 1 sym__type_not_void]), (2100, [Item 1 sym__final_var_or_type]), (2101,
       [Item 1 aux_sym__expression_repeat1, Item 2 aux_sym__expression_repeat1])]"

definition lr_items_15 :: "(TSStateId \<times> lr_item list) list" where
  "lr_items_15 = [
     (2102, [Item 1 sym__primary_pattern]), (2103, [Item 1 sym_mixin_application_class,
       Item 3 sym_class_definition]), (2104, [Item 4 sym_const_object_expression]), (2105,
       [Item 5 sym_constant_pattern]), (2106, [Item 2 sym_symbol_literal]), (2107,
       [Item 1 sym_mixin_application_class, Item 2 sym_class_definition]), (2108,
       [Item 5 sym_qualified]), (2109, [Item 3 sym_arguments]), (2110, [Item 3 sym_qualified]),
       (2111, [Item 1 sym__type_not_void_not_function, Item 3 sym_type_alias]), (2112,
       [Item 4 sym_super_formal_parameter]), (2113, [Item 1 sym__required]), (2114,
       [Item 3 sym_const_object_expression]), (2115, [Item 4 sym_constant_pattern]), (2116,
       [Item 4 sym_constructor_param]), (2117, [Item 2 sym__type_not_void_not_function,
       Item 2 sym_constructor_invocation, Item 2 sym_constructor_tearoff,
       Item 2 sym_object_pattern]), (2118, [Item 1 sym__type_not_void_not_function,
       Item 2 sym_type_alias]), (2119, [Item 6 sym_constant_pattern]), (2120,
       [Item 1 sym__bool_literal]), (2121, [Item 2 sym_arguments]), (2122,
       [Item 1 sym__new_builtin]), (2123, [Item 2 sym_variable_pattern]), (2124,
       [Item 1 sym_constant_pattern]), (2125, [Item 1 sym_null_literal]), (2126,
       [Item 1 sym__type_not_void_not_function, Item 1 sym_constructor_invocation,
       Item 1 sym_constructor_tearoff, Item 1 sym_object_pattern, Item 1 sym_qualified]), (2127,
       [Item 2 sym_constant_pattern]), (2128, [Item 1 sym_false]), (2129,
       [Item 1 sym__unary_pattern, Item 1 sym_cast_pattern, Item 1 sym_null_assert_pattern,
       Item 1 sym_null_check_pattern]), (2130, [Item 7 sym_constant_pattern]), (2131,
       [Item 3 sym_super_formal_parameter]), (2132, [Item 3 sym_constructor_param]), (2133,
       [Item 1 sym_true]), (2134, [Item 1 sym__numeric_literal]), (2135,
       [Item 1 aux_sym__expression_repeat1, Item 2 sym__expression]), (2136,
       [Item 1 aux_sym__logical_and_pattern_repeat1, Item 2 sym__logical_and_pattern]), (2137,
       [Item 1 aux_sym__expression_repeat1, Item 4 sym_field_initializer]), (2138,
       [Item 1 aux_sym__expression_repeat1, Item 6 sym_field_initializer]), (2139,
       [Item 3 sym_class_definition]), (2140, [Item 1 aux_sym__expression_repeat1,
       Item 2 aux_sym__expression_repeat1]), (2141, [Item 1 sym__function_type_tail]), (2142,
       [Item 1 aux_sym__expression_repeat1, Item 2 aux_sym__expression_repeat1]), (2143,
       [Item 1 aux_sym__logical_and_pattern_repeat1,
       Item 2 aux_sym__logical_and_pattern_repeat1]), (2144, [Item 1 sym__function_type_tail,
       Item 1 sym__type_not_void_not_function]), (2145, [Item 1 sym__type_not_void]), (2146,
       [Item 2 sym_class_definition]), (2147, [Item 1 sym__logical_and_pattern]), (2148,
       [Item 2 sym_mixin_application_class, Item 4 sym_class_definition]), (2149,
       [Item 1 sym__static]), (2150,
       [Item 1 aux_sym__string_literal_single_quotes_multiple_repeat1,
       Item 2 sym__string_literal_single_quotes_multiple]), (2151,
       [Item 1 aux_sym__string_literal_double_quotes_multiple_repeat1,
       Item 2 aux_sym__string_literal_double_quotes_multiple_repeat1]), (2152,
       [Item 1 sym__logical_or_pattern]), (2153,
       [Item 1 sym__string_literal_double_quotes_multiple]), (2154,
       [Item 1 sym__string_literal_double_quotes_multiple]), (2155,
       [Item 1 aux_sym__logical_or_pattern_repeat1,
       Item 2 aux_sym__logical_or_pattern_repeat1]), (2156,
       [Item 1 sym__type_not_void_not_function, Item 1 sym_object_pattern,
       Item 1 sym_qualified]), (2157, [Item 1 sym__string_literal_single_quotes_multiple]),
       (2158, [Item 1 sym__outer_pattern, Item 1 sym__primary_pattern]), (2159,
       [Item 1 sym__external_builtin]), (2160,
       [Item 1 sym__string_literal_double_quotes_multiple]), (2161,
       [Item 1 aux_sym__function_type_tails, Item 1 sym_function_type]), (2162,
       [Item 1 sym__string_literal_single_quotes_multiple]), (2163,
       [Item 1 aux_sym__logical_or_pattern_repeat1, Item 2 sym__logical_or_pattern]), (2164,
       [Item 1 sym__type_name, Item 1 sym_type_parameter]), (2165,
       [Item 1 aux_sym__string_literal_double_quotes_multiple_repeat1,
       Item 2 sym__string_literal_double_quotes_multiple]), (2166,
       [Item 1 sym__string_literal_double_quotes_multiple]), (2167, [Item 1 sym__type_name]),
       (2168, [Item 1 aux_sym_switch_block_repeat1, Item 2 sym_switch_block]), (2169,
       [Item 1 sym__new_builtin]), (2170, [Item 1 sym__string_literal_single_quotes_multiple]),
       (2171, [Item 2 sym_mixin_application_class, Item 3 sym_class_definition]), (2172,
       [Item 1 aux_sym__string_literal_double_quotes_multiple_repeat1,
       Item 2 sym__string_literal_double_quotes_multiple]), (2173,
       [Item 1 aux_sym__string_literal_single_quotes_multiple_repeat1,
       Item 2 sym__string_literal_single_quotes_multiple]), (2174,
       [Item 1 aux_sym__function_type_tails, Item 2 sym_function_type]), (2175,
       [Item 1 aux_sym__function_type_tails, Item 2 aux_sym__function_type_tails]), (2176,
       [Item 1 aux_sym__string_literal_single_quotes_multiple_repeat1,
       Item 2 aux_sym__string_literal_single_quotes_multiple_repeat1]), (2177,
       [Item 1 aux_sym__string_literal_double_quotes_multiple_repeat1,
       Item 2 sym__string_literal_double_quotes_multiple]), (2178,
       [Item 1 sym__string_literal_double_quotes_multiple]), (2179,
       [Item 1 aux_sym__string_literal_double_quotes_multiple_repeat1,
       Item 2 sym__string_literal_double_quotes_multiple]), (2180,
       [Item 1 aux_sym__string_literal_double_quotes_multiple_repeat1,
       Item 2 sym__string_literal_double_quotes_multiple]), (2181,
       [Item 1 sym__string_literal_single_quotes_multiple]), (2182,
       [Item 1 aux_sym__string_literal_single_quotes_multiple_repeat1,
       Item 2 sym__string_literal_single_quotes_multiple]), (2183,
       [Item 1 sym__string_literal_single_quotes_multiple]), (2184,
       [Item 1 aux_sym__string_literal_single_quotes_multiple_repeat1,
       Item 2 sym__string_literal_single_quotes_multiple]), (2185,
       [Item 1 aux_sym__string_literal_single_quotes_multiple_repeat1,
       Item 2 sym__string_literal_single_quotes_multiple]), (2186,
       [Item 2 aux_sym__logical_and_pattern_repeat1]), (2187, [Item 1 sym_declaration,
       Item 1 sym_method_signature]), (2188, [Item 1 aux_sym_initializers_repeat1]), (2189,
       [Item 1 sym__type_name, Item 1 sym_identifier_list]), (2190, [Item 1 sym_inferred_type]),
       (2191, [Item 1 aux_sym__string_literal_double_quotes_repeat1,
       Item 2 sym__string_literal_double_quotes]), (2192,
       [Item 1 aux_sym__string_literal_single_quotes_repeat1,
       Item 2 sym__string_literal_single_quotes]), (2193, [Item 1 aux_sym_switch_block_repeat1,
       Item 2 aux_sym_switch_block_repeat1]), (2194, [Item 1 sym_initializers,
       Item 1 sym_redirection]), (2195, [Item 2 sym__top_level_definition]), (2196,
       [Item 1 sym__string_literal_double_quotes]), (2197, [Item 2 sym_null_assert_pattern]),
       (2198, [Item 1 sym__string_literal_single_quotes]), (2199,
       [Item 2 sym_null_check_pattern]), (2200, [Item 1 sym_enum_constant]), (2201,
       [Item 1 aux_sym__raw_string_literal_single_quotes_multiple_repeat1,
       Item 2 aux_sym__raw_string_literal_single_quotes_multiple_repeat1]), (2202,
       [Item 1 aux_sym__raw_string_literal_double_quotes_multiple_repeat1,
       Item 2 aux_sym__raw_string_literal_double_quotes_multiple_repeat1]), (2203,
       [Item 1 aux_sym__string_literal_single_quotes_repeat1,
       Item 2 aux_sym__string_literal_single_quotes_repeat1]), (2204,
       [Item 2 sym__type_not_void]), (2205, [Item 2 sym_enum_constant]), (2206,
       [Item 1 aux_sym__string_literal_double_quotes_repeat1,
       Item 2 aux_sym__string_literal_double_quotes_repeat1]), (2207,
       [Item 1 sym__top_level_definition]), (2208,
       [Item 1 aux_sym__raw_string_literal_single_quotes_multiple_repeat1,
       Item 2 sym__raw_string_literal_single_quotes_multiple]), (2209,
       [Item 1 aux_sym__raw_string_literal_double_quotes_multiple_repeat1,
       Item 2 sym__raw_string_literal_double_quotes_multiple]), (2210,
       [Item 1 aux_sym__string_literal_single_quotes_repeat1,
       Item 2 sym__string_literal_single_quotes]), (2211,
       [Item 1 sym__raw_string_literal_double_quotes_multiple]), (2212,
       [Item 1 aux_sym__string_literal_double_quotes_repeat1,
       Item 2 sym__string_literal_double_quotes]), (2213,
       [Item 1 sym__raw_string_literal_single_quotes_multiple]), (2214,
       [Item 1 sym__raw_string_literal_double_quotes_multiple]), (2215,
       [Item 1 sym__raw_string_literal_single_quotes_multiple]), (2216,
       [Item 3 sym__function_type_tail]), (2217, [Item 3 sym_cast_pattern]), (2218,
       [Item 1 aux_sym__string_literal_double_quotes_repeat1,
       Item 2 sym__string_literal_double_quotes]), (2219, [Item 2 sym__function_type_tail]),
       (2220, [Item 1 aux_sym__string_literal_single_quotes_repeat1,
       Item 2 sym__string_literal_single_quotes]), (2221,
       [Item 1 aux_sym_initializers_repeat1]), (2222,
       [Item 1 aux_sym__raw_string_literal_double_quotes_multiple_repeat1,
       Item 2 sym__raw_string_literal_double_quotes_multiple]), (2223,
       [Item 1 aux_sym__raw_string_literal_single_quotes_multiple_repeat1,
       Item 2 sym__raw_string_literal_single_quotes_multiple]), (2224,
       [Item 4 sym_class_definition]), (2225, [Item 1 sym__type_name,
       Item 1 sym_initialized_identifier]), (2226, [Item 1 sym__string_literal_single_quotes]),
       (2227, [Item 1 sym__string_literal_double_quotes]), (2228, [Item 1 sym__class_modifiers,
       Item 1 sym__mixin_class_modifiers]), (2229,
       [Item 1 aux_sym__raw_string_literal_double_quotes_multiple_repeat1,
       Item 2 sym__raw_string_literal_double_quotes_multiple]), (2230,
       [Item 1 sym__relational_pattern]), (2231, [Item 1 sym__unary_pattern]), (2232,
       [Item 1 aux_sym__string_literal_single_quotes_repeat1,
       Item 2 sym__string_literal_single_quotes]), (2233,
       [Item 1 aux_sym__string_literal_double_quotes_repeat1,
       Item 2 sym__string_literal_double_quotes]), (2234, [Item 3 sym_class_definition]), (2235,
       [Item 3 sym_enum_declaration]), (2236,
       [Item 1 aux_sym__raw_string_literal_double_quotes_multiple_repeat1,
       Item 2 sym__raw_string_literal_double_quotes_multiple]), (2237,
       [Item 1 sym_configurable_uri, Item 2 sym_import_specification]), (2238,
       [Item 1 aux_sym__raw_string_literal_single_quotes_multiple_repeat1,
       Item 2 sym__raw_string_literal_single_quotes_multiple]), (2239,
       [Item 1 sym__string_literal_double_quotes]), (2240,
       [Item 1 sym__string_literal_single_quotes]), (2241,
       [Item 1 aux_sym__raw_string_literal_single_quotes_multiple_repeat1,
       Item 2 sym__raw_string_literal_single_quotes_multiple]), (2242,
       [Item 1 aux_sym__raw_string_literal_double_quotes_multiple_repeat1,
       Item 2 sym__raw_string_literal_double_quotes_multiple]), (2243,
       [Item 1 sym__raw_string_literal_single_quotes_multiple]), (2244,
       [Item 1 sym__raw_string_literal_double_quotes_multiple]), (2245,
       [Item 1 aux_sym__string_literal_single_quotes_repeat1,
       Item 2 sym__string_literal_single_quotes]), (2246,
       [Item 1 aux_sym__string_literal_double_quotes_repeat1,
       Item 2 sym__string_literal_double_quotes]), (2247, [Item 1 sym__type_name,
       Item 1 sym_constructor_signature]), (2248,
       [Item 1 sym__raw_string_literal_double_quotes_multiple]), (2249,
       [Item 1 sym__raw_string_literal_single_quotes_multiple]), (2250,
       [Item 1 sym__raw_string_literal_double_quotes_multiple]), (2251,
       [Item 1 sym__string_literal_single_quotes])]"

definition lr_items_16 :: "(TSStateId \<times> lr_item list) list" where
  "lr_items_16 = [
     (2252, [Item 1 sym_initializers, Item 1 sym_redirection]), (2253,
       [Item 1 sym__string_literal_double_quotes]), (2254,
       [Item 1 sym__raw_string_literal_single_quotes_multiple]), (2255,
       [Item 1 sym__string_literal_single_quotes]), (2256,
       [Item 1 sym__string_literal_double_quotes]), (2257, [Item 2 sym_enum_declaration]),
       (2258, [Item 1 sym_final_builtin]), (2259, [Item 2 sym__function_type_tail,
       Item 2 sym__type_not_void_not_function]), (2260, [Item 1 sym_initialized_identifier,
       Item 2 sym_function_signature]), (2261,
       [Item 1 aux_sym__raw_string_literal_single_quotes_multiple_repeat1,
       Item 2 sym__raw_string_literal_single_quotes_multiple]), (2262,
       [Item 2 sym__function_type_tail]), (2263,
       [Item 1 aux_sym__raw_string_literal_double_quotes_repeat1,
       Item 2 sym__raw_string_literal_double_quotes]), (2264,
       [Item 1 aux_sym_initializers_repeat1, Item 3 sym_initializers]), (2265,
       [Item 4 sym_operator_signature]), (2266, [Item 1 aux_sym_type_parameters_repeat1]),
       (2267, [Item 1 sym_type_parameters]), (2268, [Item 3 sym_configuration_uri_condition]),
       (2269, [Item 1 sym_type_parameters]), (2270, [Item 1 sym__covariant]), (2271,
       [Item 1 sym__export]), (2272, [Item 1 sym_type_parameters]), (2273,
       [Item 1 sym_argument_part, Item 1 sym_selector]), (2274, [Item 1 sym__import]), (2275,
       [Item 2 sym__function_formal_parameter]), (2276, [Item 2 sym_function_signature]), (2277,
       [Item 1 sym_type_parameters]), (2278, [Item 2 sym__declared_identifier]), (2279,
       [Item 2 sym__function_formal_parameter, Item 2 sym_record_type_field]), (2280,
       [Item 1 aux_sym__raw_string_literal_single_quotes_repeat1,
       Item 2 aux_sym__raw_string_literal_single_quotes_repeat1]), (2281,
       [Item 1 aux_sym__raw_string_literal_double_quotes_repeat1,
       Item 2 aux_sym__raw_string_literal_double_quotes_repeat1]), (2282,
       [Item 2 sym__declared_identifier, Item 3 sym__declared_identifier]), (2283,
       [Item 1 sym_type_parameters]), (2284, [Item 2 sym__function_formal_parameter,
       Item 3 sym_record_type_field]), (2285, [Item 3 sym_operator_signature]), (2286,
       [Item 1 aux_sym_enum_body_repeat1, Item 4 sym_enum_body]), (2287,
       [Item 1 aux_sym_enum_body_repeat1, Item 3 sym_enum_body]), (2288,
       [Item 3 sym__function_formal_parameter]), (2289, [Item 3 sym_function_signature]), (2290,
       [Item 1 aux_sym__raw_string_literal_double_quotes_repeat1,
       Item 2 sym__raw_string_literal_double_quotes]), (2291,
       [Item 1 aux_sym_initializers_repeat1, Item 2 aux_sym_initializers_repeat1]), (2292,
       [Item 3 sym__declared_identifier]), (2293, [Item 1 sym__identifier_or_new,
       Item 2 sym__type_dot_identifier]), (2294,
       [Item 1 sym__raw_string_literal_double_quotes]), (2295,
       [Item 1 aux_sym__raw_string_literal_single_quotes_repeat1,
       Item 2 sym__raw_string_literal_single_quotes]), (2296,
       [Item 1 sym__formal_parameter_part, Item 2 sym_constructor_signature]), (2297,
       [Item 1 sym_type_parameters]), (2298,
       [Item 1 aux_sym__raw_string_literal_double_quotes_repeat1,
       Item 2 sym__raw_string_literal_double_quotes]), (2299,
       [Item 2 sym__function_formal_parameter, Item 2 sym_typed_identifier]), (2300,
       [Item 1 aux_sym__raw_string_literal_single_quotes_repeat1,
       Item 2 sym__raw_string_literal_single_quotes]), (2301,
       [Item 1 sym__raw_string_literal_single_quotes]), (2302, [Item 3 sym_getter_signature]),
       (2303, [Item 2 sym_initializers]), (2304,
       [Item 1 sym__raw_string_literal_single_quotes]), (2305, [Item 3 sym_function_signature]),
       (2306, [Item 1 sym__raw_string_literal_double_quotes]), (2307,
       [Item 1 aux_sym__raw_string_literal_double_quotes_multiple_repeat1,
       Item 1 sym__sub_string_test]), (2308, [Item 2 aux_sym__logical_or_pattern_repeat1]),
       (2309, [Item 3 sym_mixin_declaration]), (2310, [Item 4 sym__function_formal_parameter]),
       (2311, [Item 2 sym_function_signature]), (2312, [Item 4 sym_mixin_declaration]), (2313,
       [Item 1 aux_sym__raw_string_literal_double_quotes_repeat1,
       Item 2 sym__raw_string_literal_double_quotes]), (2314,
       [Item 1 aux_sym__raw_string_literal_single_quotes_repeat1,
       Item 2 sym__raw_string_literal_single_quotes]), (2315,
       [Item 3 sym_constructor_invocation, Item 3 sym_constructor_tearoff]), (2316,
       [Item 1 aux_sym__raw_string_literal_double_quotes_repeat1,
       Item 2 sym__raw_string_literal_double_quotes]), (2317,
       [Item 1 aux_sym__raw_string_literal_single_quotes_repeat1,
       Item 2 sym__raw_string_literal_single_quotes]), (2318,
       [Item 1 sym__raw_string_literal_double_quotes]), (2319,
       [Item 1 sym__raw_string_literal_single_quotes]), (2320,
       [Item 2 sym_import_specification]), (2321, [Item 3 sym__declared_identifier,
       Item 4 sym__declared_identifier]), (2322,
       [Item 1 sym__raw_string_literal_double_quotes]), (2323,
       [Item 1 aux_sym__raw_string_literal_single_quotes_multiple_repeat1,
       Item 1 sym__sub_string_test]), (2324, [Item 1 sym__raw_string_literal_double_quotes]),
       (2325, [Item 3 sym_setter_signature]), (2326,
       [Item 1 aux_sym__raw_string_literal_single_quotes_repeat1,
       Item 2 sym__raw_string_literal_single_quotes]), (2327, [Item 2 sym_mixin_declaration]),
       (2328, [Item 1 sym__raw_string_literal_single_quotes]), (2329,
       [Item 2 sym_getter_signature]), (2330, [Item 1 sym__raw_string_literal_single_quotes]),
       (2331, [Item 4 sym_setter_signature]), (2332, [Item 2 sym_function_expression_body]),
       (2333, [Item 3 sym_assertion_arguments]), (2334, [Item 4 sym__declared_identifier]),
       (2335, [Item 1 sym_this]), (2336, [Item 1 aux_sym_configurable_uri_repeat1,
       Item 2 sym_configurable_uri]), (2337, [Item 4 sym_constructor_signature]), (2338,
       [Item 1 aux_sym__assignable_selector_part_repeat1]), (2339,
       [Item 1 sym_function_expression]), (2340, [Item 3 sym_set_or_map_literal]), (2341,
       [Item 3 sym_list_literal]), (2342, [Item 1 sym_function_expression]), (2343,
       [Item 1 sym_function_signature, Item 1 sym_setter_signature]), (2344,
       [Item 1 sym_function_signature, Item 1 sym_getter_signature]), (2345,
       [Item 6 sym_set_or_map_literal]), (2346, [Item 6 sym_list_literal]), (2347,
       [Item 6 sym_assertion_arguments]), (2348, [Item 1 sym__numeric_literal]), (2349,
       [Item 2 sym_initializer_list_entry]), (2350, [Item 1 sym_true]), (2351,
       [Item 1 sym_false]), (2352, [Item 4 sym_factory_constructor_signature,
       Item 4 sym_redirecting_factory_constructor_signature]), (2353,
       [Item 7 sym_switch_expression]), (2354, [Item 1 sym_initializer_list_entry]), (2355,
       [Item 7 sym_set_or_map_literal]), (2356, [Item 3 sym_const_object_expression]), (2357,
       [Item 1 sym_function_signature, Item 1 sym_getter_signature, Item 1 sym_setter_signature,
       Item 2 sym_declaration]), (2358, [Item 1 sym_function_expression]), (2359,
       [Item 1 sym_null_literal]), (2360, [Item 4 sym_initializer_list_entry]), (2361,
       [Item 1 aux_sym_configurable_uri_repeat1, Item 2 aux_sym_configurable_uri_repeat1]),
       (2362, [Item 2 sym__sub_string_test]), (2363, [Item 1 sym_rethrow_expression]), (2364,
       [Item 1 sym__literal]), (2365, [Item 3 sym_assignment_expression]), (2366,
       [Item 7 sym_list_literal]), (2367, [Item 2 sym_record_literal]), (2368,
       [Item 1 sym_lambda_expression]), (2369, [Item 1 sym__primary]), (2370,
       [Item 1 aux_sym_extension_body_repeat1]), (2371, [Item 1 sym__bool_literal]), (2372,
       [Item 2 sym_function_signature, Item 2 sym_getter_signature]), (2373,
       [Item 1 sym__pattern]), (2374, [Item 2 sym_argument_part]), (2375,
       [Item 5 sym_assertion_arguments]), (2376, [Item 2 sym_list_literal]), (2377,
       [Item 1 sym_function_signature, Item 1 sym_setter_signature]), (2378,
       [Item 2 sym_function_signature, Item 2 sym_setter_signature]), (2379,
       [Item 5 sym_constructor_invocation]), (2380, [Item 5 sym_switch_expression]), (2381,
       [Item 3 sym_type_arguments]), (2382, [Item 3 sym_pattern_assignment]), (2383,
       [Item 5 sym__record_literal_no_const]), (2384, [Item 1 sym_function_expression_body]),
       (2385, [Item 1 sym_selector]), (2386, [Item 2 sym_type_arguments]), (2387,
       [Item 2 sym_symbol_literal]), (2388, [Item 1 sym_record_literal]), (2389,
       [Item 5 sym_list_literal]), (2390, [Item 6 sym_switch_expression]), (2391,
       [Item 5 sym_set_or_map_literal]), (2392, [Item 4 sym_assertion_arguments]), (2393,
       [Item 1 sym__expression]), (2394, [Item 4 sym_type_arguments]), (2395,
       [Item 2 sym_function_signature, Item 2 sym_setter_signature]), (2396,
       [Item 3 sym_index_selector]), (2397, [Item 3 sym_new_expression]), (2398,
       [Item 1 aux_sym__raw_string_literal_single_quotes_multiple_repeat1]), (2399,
       [Item 2 sym_throw_expression]), (2400, [Item 2 sym_function_signature,
       Item 2 sym_getter_signature]), (2401, [Item 1 sym_argument_part])]"

definition lr_items_17 :: "(TSStateId \<times> lr_item list) list" where
  "lr_items_17 = [
     (2402, [Item 1 aux_sym__raw_string_literal_double_quotes_multiple_repeat1]), (2403,
       [Item 2 aux_sym_extension_body_repeat1]), (2404, [Item 4 sym_set_or_map_literal]), (2405,
       [Item 4 sym_list_literal]), (2406, [Item 3 sym_factory_constructor_signature,
       Item 3 sym_redirecting_factory_constructor_signature]), (2407, [Item 1 sym__type,
       Item 1 sym__type_not_void]), (2408, [Item 2 sym__sub_string_test]), (2409,
       [Item 1 sym_unconditional_assignable_selector]), (2410, [Item 4 sym_enum_declaration]),
       (2411, [Item 1 sym_function_signature, Item 1 sym_getter_signature]), (2412,
       [Item 4 sym__record_literal_no_const]), (2413, [Item 4 sym_new_expression]), (2414,
       [Item 1 sym__assignable_selector]), (2415, [Item 3 sym_function_expression_body]), (2416,
       [Item 4 sym_const_object_expression]), (2417, [Item 1 aux_sym_enum_body_repeat2]), (2418,
       [Item 1 sym_declaration, Item 1 sym_method_signature]), (2419,
       [Item 1 sym_function_signature, Item 1 sym_getter_signature, Item 1 sym_setter_signature,
       Item 2 sym__top_level_definition]), (2420, [Item 1 sym__type_name,
       Item 1 sym_static_final_declaration]), (2421, [Item 1 sym__type_not_void_not_function,
       Item 1 sym_object_pattern]), (2422, [Item 2 aux_sym_enum_body_repeat2]), (2423,
       [Item 2 sym_conditional_assignable_selector]), (2424, [Item 1 sym__type,
       Item 1 sym_function_type]), (2425,
       [Item 1 aux_sym__raw_string_literal_single_quotes_repeat1, Item 1 sym__sub_string_test]),
       (2426, [Item 1 sym_function_expression]), (2427, [Item 2 sym_function_expression]),
       (2428, [Item 4 sym_constructor_tearoff]), (2429, [Item 2 sym_assertion]), (2430,
       [Item 2 aux_sym_initializers_repeat1]), (2431, [Item 2 sym__type_not_void_not_function,
       Item 2 sym_object_pattern]), (2432, [Item 2 sym_set_or_map_literal]), (2433,
       [Item 1 sym__top_level_definition, Item 1 sym_function_signature,
       Item 1 sym_getter_signature, Item 1 sym_setter_signature]), (2434,
       [Item 1 aux_sym__raw_string_literal_double_quotes_repeat1, Item 1 sym__sub_string_test]),
       (2435, [Item 4 sym_constructor_invocation]), (2436, [Item 3 sym_enum_declaration]),
       (2437, [Item 1 sym__var_or_type, Item 1 sym_function_signature,
       Item 1 sym_getter_signature, Item 1 sym_operator_signature,
       Item 1 sym_setter_signature]), (2438, [Item 2 sym_unconditional_assignable_selector]),
       (2439, [Item 1 aux_sym__raw_string_literal_single_quotes_repeat1]), (2440,
       [Item 1 sym_enum_body]), (2441, [Item 4 sym_template_substitution]), (2442,
       [Item 2 sym_function_signature]), (2443, [Item 1 aux_sym_library_export_repeat1,
       Item 6 sym_import_specification]), (2444, [Item 1 sym_type_parameter]), (2445,
       [Item 4 sym__function_formal_parameter]), (2446, [Item 5 sym_operator_signature]), (2447,
       [Item 4 sym_super_formal_parameter]), (2448,
       [Item 1 aux_sym__raw_string_literal_double_quotes_repeat1]), (2449,
       [Item 1 aux_sym__string_literal_single_quotes_multiple_repeat1]), (2450,
       [Item 1 sym_cascade_section]), (2451, [Item 1 sym_declaration,
       Item 1 sym_method_signature]), (2452, [Item 5 sym_mixin_declaration]), (2453,
       [Item 1 sym_escape_sequence]), (2454, [Item 4 sym_constructor_param]), (2455,
       [Item 1 sym_is_operator]), (2456, [Item 1 sym_type_parameter]), (2457, [Item 1 sym_uri]),
       (2458, [Item 2 sym__native]), (2459, [Item 4 sym_setter_signature]), (2460,
       [Item 3 sym_function_signature]), (2461, [Item 2 sym_function_signature]), (2462,
       [Item 2 sym_setter_signature]), (2463, [Item 1 sym_function_signature]), (2464,
       [Item 1 sym__normal_formal_parameter]), (2465, [Item 1 sym__normal_formal_parameter]),
       (2466, [Item 1 sym_formal_parameter]), (2467, [Item 1 sym_escape_sequence]), (2468,
       [Item 1 sym__simple_formal_parameter]), (2469, [Item 2 sym_function_signature]), (2470,
       [Item 3 sym__strict_formal_parameter_list]), (2471, [Item 2 sym_function_signature]),
       (2472, [Item 2 sym__function_formal_parameter]), (2473, [Item 3 sym_setter_signature]),
       (2474, [Item 3 sym_setter_signature]), (2475, [Item 3 sym__function_formal_parameter]),
       (2476, [Item 1 aux_sym_switch_statement_case_repeat1, Item 1 sym_switch_statement_case,
       Item 1 sym_switch_statement_default]), (2477, [Item 1 aux_sym_library_export_repeat1,
       Item 4 sym_library_export]), (2478, [Item 2 sym__normal_formal_parameter]), (2479,
       [Item 1 sym_cascade_section]), (2480, [Item 2 sym__normal_formal_parameter]), (2481,
       [Item 1 sym__late_builtin]), (2482, [Item 4 sym_mixin_declaration]), (2483,
       [Item 4 sym_type_alias]), (2484, [Item 1 aux_sym_library_export_repeat1,
       Item 5 sym_import_specification]), (2485, [Item 3 sym_type_alias]), (2486,
       [Item 1 sym_cascade_section]), (2487, [Item 4 sym_template_substitution]), (2488,
       [Item 1 sym_abstract]), (2489, [Item 3 sym_mixin_declaration]), (2490,
       [Item 1 aux_sym_library_export_repeat1, Item 3 sym_import_specification]), (2491,
       [Item 4 sym_import_specification]), (2492, [Item 3 sym_function_signature]), (2493,
       [Item 3 sym_getter_signature]), (2494, [Item 2 sym_setter_signature]), (2495,
       [Item 1 aux_sym__string_literal_double_quotes_multiple_repeat1]), (2496,
       [Item 1 aux_sym__expression_repeat1, Item 4 sym_field_initializer]), (2497,
       [Item 2 sym__sub_string_test]), (2498, [Item 2 sym__sub_string_test]), (2499,
       [Item 2 sym_template_substitution]), (2500, [Item 1 sym_function_signature]), (2501,
       [Item 1 sym_cascade_section]), (2502, [Item 1 aux_sym__expression_repeat1,
       Item 6 sym_field_initializer]), (2503, [Item 1 sym__element,
       Item 1 sym_expression_statement, Item 1 sym_pair]), (2504,
       [Item 1 aux_sym_factory_constructor_signature_repeat1,
       Item 2 aux_sym_factory_constructor_signature_repeat1]), (2505,
       [Item 2 sym_library_export]), (2506, [Item 4 sym_operator_signature]), (2507,
       [Item 1 sym_configurable_uri]), (2508, [Item 5 sym_setter_signature]), (2509,
       [Item 2 sym_type_parameter]), (2510, [Item 2 sym_type_parameter]), (2511,
       [Item 1 sym_cascade_section]), (2512, [Item 5 sym_import_specification]), (2513,
       [Item 3 sym__function_formal_parameter]), (2514, [Item 3 sym_library_export]), (2515,
       [Item 2 sym__external_and_static]), (2516, [Item 4 sym_function_signature]), (2517,
       [Item 2 sym__sub_string_test]), (2518, [Item 2 sym_template_substitution]), (2519,
       [Item 2 sym__sub_string_test]), (2520, [Item 4 sym_getter_signature]), (2521,
       [Item 2 sym_declaration, Item 2 sym_method_signature]), (2522,
       [Item 1 aux_sym_library_export_repeat1, Item 3 sym_library_export]), (2523,
       [Item 5 sym__function_formal_parameter]), (2524, [Item 5 sym_super_formal_parameter]),
       (2525, [Item 5 sym_constructor_param]), (2526, [Item 4 sym_function_signature]), (2527,
       [Item 1 aux_sym_enum_body_repeat1]), (2528,
       [Item 2 aux_sym_factory_constructor_signature_repeat1]), (2529,
       [Item 1 aux_sym_switch_statement_case_repeat1,
       Item 2 aux_sym_switch_statement_case_repeat1]), (2530, [Item 1 sym__var_or_type,
       Item 1 sym_function_signature]), (2531, [Item 2 sym__sub_string_test]), (2532,
       [Item 1 aux_sym_inferred_parameters_repeat1, Item 2 sym__identifier_list]), (2533,
       [Item 2 sym_template_substitution]), (2534, [Item 1 sym__identifier_list]), (2535,
       [Item 1 aux_sym_library_export_repeat1, Item 2 aux_sym_library_export_repeat1]), (2536,
       [Item 3 sym__for_loop_parts]), (2537, [Item 3 sym_configuration_uri]), (2538,
       [Item 4 sym_template_substitution]), (2539, [Item 2 sym_factory_constructor_signature,
       Item 3 sym_redirecting_factory_constructor_signature]), (2540,
       [Item 1 sym__declared_identifier, Item 1 sym_constructor_param,
       Item 1 sym_super_formal_parameter, Item 2 sym__declared_identifier]), (2541,
       [Item 1 aux_sym__type_not_void_list_repeat1,
       Item 2 aux_sym__type_not_void_list_repeat1]), (2542,
       [Item 2 sym_factory_constructor_signature,
       Item 2 sym_redirecting_factory_constructor_signature]), (2543,
       [Item 1 aux_sym_configurable_uri_repeat1]), (2544, [Item 3 sym_class_definition]), (2545,
       [Item 2 sym_constructor_invocation, Item 2 sym_constructor_tearoff,
       Item 2 sym_qualified]), (2546, [Item 1 aux_sym_factory_constructor_signature_repeat1,
       Item 3 sym_factory_constructor_signature,
       Item 4 sym_redirecting_factory_constructor_signature]), (2547,
       [Item 4 sym_mixin_declaration]), (2548, [Item 2 sym_qualified]), (2549,
       [Item 2 sym__for_loop_parts]), (2550, [Item 4 sym_enum_declaration]), (2551,
       [Item 1 sym__class_modifiers, Item 1 sym_final_builtin])]"

definition lr_items_18 :: "(TSStateId \<times> lr_item list) list" where
  "lr_items_18 = [
     (2552, [Item 1 aux_sym_factory_constructor_signature_repeat1,
       Item 3 sym_factory_constructor_signature]), (2553, [Item 1 sym__final_var_or_type,
       Item 1 sym__function_formal_parameter, Item 1 sym__var_or_type,
       Item 1 sym_record_type_field]), (2554, [Item 1 sym__type_not_void_list]), (2555,
       [Item 1 aux_sym__type_not_void_list_repeat1, Item 2 sym__type_not_void_list]), (2556,
       [Item 2 sym__type, Item 2 sym__type_not_void]), (2557, [Item 1 sym__declared_identifier,
       Item 1 sym_constructor_param, Item 1 sym_super_formal_parameter]), (2558,
       [Item 1 sym_escape_sequence]), (2559, [Item 1 aux_sym_switch_statement_case_repeat1,
       Item 1 sym_switch_statement_case]), (2560,
       [Item 1 aux_sym_factory_constructor_signature_repeat1,
       Item 2 sym_dotted_identifier_list]), (2561, [Item 1 sym__for_loop_parts,
       Item 1 sym_initialized_variable_definition]), (2562, [Item 1 sym__element,
       Item 1 sym_pair]), (2563, [Item 3 sym_enum_declaration]), (2564,
       [Item 7 sym_mixin_declaration]), (2565, [Item 1 sym__element,
       Item 1 sym__map_pattern_entry, Item 1 sym_expression_statement, Item 1 sym_pair]), (2566,
       [Item 1 sym_function_signature, Item 1 sym_setter_signature]), (2567,
       [Item 1 sym_function_signature, Item 1 sym_getter_signature,
       Item 1 sym_setter_signature]), (2568, [Item 2 sym_method_signature]), (2569,
       [Item 2 sym_template_substitution]), (2570, [Item 2 sym__sub_string_test]), (2571,
       [Item 5 sym_enum_declaration]), (2572, [Item 5 sym_class_definition]), (2573,
       [Item 4 sym_template_substitution]), (2574, [Item 5 sym_mixin_declaration]), (2575,
       [Item 1 aux_sym_inferred_parameters_repeat1,
       Item 2 aux_sym_inferred_parameters_repeat1]), (2576,
       [Item 2 sym_factory_constructor_signature]), (2577,
       [Item 1 aux_sym_factory_constructor_signature_repeat1,
       Item 3 sym_factory_constructor_signature,
       Item 3 sym_redirecting_factory_constructor_signature]), (2578,
       [Item 4 sym_class_definition]), (2579, [Item 1 sym_library_export,
       Item 1 sym_library_import]), (2580, [Item 1 sym_dotted_identifier_list]), (2581,
       [Item 1 sym__function_formal_parameter, Item 1 sym__var_or_type,
       Item 2 sym_record_type_field]), (2582, [Item 6 sym_mixin_declaration]), (2583,
       [Item 1 aux_sym__string_literal_double_quotes_repeat1]), (2584,
       [Item 1 aux_sym__string_literal_single_quotes_repeat1]), (2585,
       [Item 1 sym_escape_sequence]), (2586, [Item 4 sym_class_definition]), (2587,
       [Item 4 sym_enum_declaration]), (2588, [Item 7 sym_if_element]), (2589,
       [Item 7 sym_if_element]), (2590, [Item 2 sym_typed_identifier]), (2591,
       [Item 1 sym_constant_pattern]), (2592, [Item 2 sym_const_object_expression]), (2593,
       [Item 2 sym_superclass]), (2594, [Item 1 sym__primary,
       Item 1 sym_assignable_expression]), (2595, [Item 2 sym_new_expression]), (2596,
       [Item 1 sym_function_type]), (2597, [Item 3 sym_spread_element]), (2598,
       [Item 9 sym_if_element]), (2599, [Item 2 aux_sym_inferred_parameters_repeat1]), (2600,
       [Item 3 sym_for_element]), (2601, [Item 2 sym_spread_element]), (2602,
       [Item 1 sym__formal_parameter_part, Item 3 sym_type_alias]), (2603,
       [Item 4 sym_qualified]), (2604, [Item 1 sym__formal_parameter_part,
       Item 4 sym_type_alias]), (2605, [Item 1 aux_sym_list_literal_repeat1,
       Item 2 aux_sym_list_literal_repeat1]), (2606, [Item 3 sym_pair]), (2607,
       [Item 2 sym_new_expression]), (2608, [Item 1 sym_function_type]), (2609,
       [Item 1 sym__primary, Item 1 sym_assignable_expression]), (2610,
       [Item 1 sym_declaration]), (2611, [Item 2 sym_const_object_expression]), (2612,
       [Item 2 sym_mixin_application]), (2613, [Item 2 sym_new_expression]), (2614,
       [Item 1 sym_function_type]), (2615, [Item 4 sym_for_element]), (2616,
       [Item 1 sym__final_or_const]), (2617, [Item 1 sym_constant_constructor_signature,
       Item 2 sym_declaration]), (2618, [Item 1 sym_constant_constructor_signature,
       Item 1 sym_declaration, Item 1 sym_redirecting_factory_constructor_signature]), (2619,
       [Item 1 sym_extension_declaration]), (2620, [Item 1 sym__type_dot_identifier,
       Item 2 sym_constructor_signature]), (2621, [Item 2 sym_constant_constructor_signature]),
       (2622, [Item 1 sym__implements]), (2623, [Item 2 sym_const_object_expression]), (2624,
       [Item 1 sym__for_loop_parts]), (2625, [Item 1 sym__normal_formal_parameter,
       Item 2 sym__normal_formal_parameter]), (2626, [Item 1 sym__primary,
       Item 1 sym_assignable_expression]), (2627, [Item 1 sym__normal_formal_parameter,
       Item 2 sym__normal_formal_parameter]), (2628, [Item 2 sym__default_named_parameter]),
       (2629, [Item 1 sym__typedef]), (2630, [Item 1 aux_sym_parameter_type_list_repeat1,
       Item 2 aux_sym_parameter_type_list_repeat1]), (2631, [Item 2 sym_enum_body]), (2632,
       [Item 3 sym_type_parameter]), (2633, [Item 1 sym_function_type]), (2634,
       [Item 3 sym_type_parameter]), (2635, [Item 1 sym__primary,
       Item 1 sym_assignable_expression]), (2636, [Item 3 sym_constant_constructor_signature]),
       (2637, [Item 2 sym_extension_declaration]), (2638, [Item 1 sym_function_type]), (2639,
       [Item 1 sym_normal_parameter_type, Item 1 sym_typed_identifier]), (2640,
       [Item 2 sym_is_operator]), (2641, [Item 1 aux_sym_enum_body_repeat1,
       Item 3 sym_enum_body]), (2642, [Item 1 sym__primary, Item 1 sym_assignable_expression]),
       (2643, [Item 2 aux_sym__type_not_void_list_repeat1]), (2644,
       [Item 2 sym_field_initializer, Item 3 sym_redirection]), (2645, [Item 5 sym_if_element]),
       (2646, [Item 2 sym_field_initializer, Item 3 sym_redirection]), (2647,
       [Item 2 sym_type_parameter]), (2648, [Item 1 sym__primary,
       Item 1 sym_assignable_expression]), (2649, [Item 1 sym_function_type]), (2650,
       [Item 2 sym_const_object_expression]), (2651, [Item 1 sym_typed_identifier,
       Item 2 sym_normal_parameter_type]), (2652, [Item 2 sym__on_part]), (2653,
       [Item 2 sym_type_parameter]), (2654, [Item 1 sym__default_named_parameter]), (2655,
       [Item 1 aux_sym_enum_body_repeat1, Item 2 aux_sym_enum_body_repeat1]), (2656,
       [Item 1 sym__primary, Item 1 sym_assignable_expression]), (2657,
       [Item 2 sym_const_object_expression]), (2658, [Item 1 aux_sym__for_loop_parts_repeat1,
       Item 2 sym__for_loop_parts]), (2659, [Item 1 sym_as_operator]), (2660,
       [Item 1 sym__element]), (2661, [Item 1 sym_constructor_invocation,
       Item 1 sym_constructor_tearoff, Item 1 sym_object_pattern]), (2662,
       [Item 3 sym__default_named_parameter]), (2663, [Item 1 sym_constructor_invocation,
       Item 1 sym_constructor_tearoff, Item 1 sym_object_pattern]), (2664,
       [Item 1 sym_function_type]), (2665, [Item 1 aux_sym_switch_block_repeat1]), (2666,
       [Item 1 sym__guarded_pattern]), (2667, [Item 1 sym_initialized_variable_definition]),
       (2668, [Item 1 sym__primary, Item 1 sym_assignable_expression]), (2669,
       [Item 2 sym_new_expression]), (2670, [Item 2 sym_record_type]), (2671,
       [Item 3 sym_function_signature]), (2672, [Item 3 sym_record_type]), (2673,
       [Item 1 aux_sym_initialized_identifier_list_repeat1,
       Item 2 sym_initialized_variable_definition]), (2674,
       [Item 1 aux_sym_list_literal_repeat1, Item 5 sym_list_literal]), (2675,
       [Item 2 sym_function_signature]), (2676, [Item 2 sym_getter_signature]), (2677,
       [Item 1 aux_sym__for_loop_parts_repeat2, Item 3 sym__for_loop_parts]), (2678,
       [Item 1 aux_sym_record_type_repeat2, Item 4 sym_record_type]), (2679,
       [Item 3 sym__for_loop_parts]), (2680, [Item 2 sym_function_signature]), (2681,
       [Item 4 sym_switch_expression]), (2682, [Item 1 aux_sym_record_pattern_repeat1,
       Item 2 aux_sym_record_pattern_repeat1]), (2683, [Item 1 aux_sym_type_arguments_repeat1,
       Item 3 sym_type_arguments]), (2684, [Item 1 aux_sym_initialized_identifier_list_repeat1,
       Item 2 sym_initialized_identifier_list]), (2685, [Item 2 sym_type_arguments]), (2686,
       [Item 1 aux_sym_record_pattern_repeat1, Item 5 sym_object_pattern]), (2687,
       [Item 3 sym__for_loop_parts]), (2688, [Item 1 sym__element,
       Item 1 sym__map_pattern_entry, Item 1 sym_pair]), (2689,
       [Item 1 aux_sym_type_arguments_repeat1, Item 3 sym_type_arguments]), (2690,
       [Item 1 sym__final_var_or_type, Item 1 sym__function_formal_parameter,
       Item 1 sym__var_or_type]), (2691, [Item 1 aux_sym_switch_statement_case_repeat1]), (2692,
       [Item 2 sym_type_arguments]), (2693, [Item 1 sym_break_statement]), (2694,
       [Item 1 aux_sym__record_literal_no_const_repeat1,
       Item 2 aux_sym__record_literal_no_const_repeat1]), (2695,
       [Item 1 aux_sym_parameter_type_list_repeat1, Item 3 sym_parameter_type_list]), (2696,
       [Item 5 sym_enum_constant]), (2697, [Item 1 aux_sym_type_arguments_repeat1,
       Item 3 sym_type_arguments]), (2698, [Item 1 sym_continue_statement]), (2699,
       [Item 1 sym_constructor_invocation, Item 1 sym_constructor_tearoff]), (2700,
       [Item 1 aux_sym_type_parameters_repeat1, Item 3 sym_type_parameters]), (2701,
       [Item 2 sym_parameter_type_list])]"

definition lr_items_19 :: "(TSStateId \<times> lr_item list) list" where
  "lr_items_19 = [
     (2702, [Item 2 sym_type_arguments]), (2703, [Item 5 sym_enum_constant]), (2704,
       [Item 3 sym__top_level_definition]), (2705, [Item 2 sym_type_parameters]), (2706,
       [Item 1 aux_sym_record_type_repeat1, Item 3 sym_record_type]), (2707,
       [Item 1 aux_sym_initialized_identifier_list_repeat1,
       Item 2 aux_sym_initialized_identifier_list_repeat1]), (2708, [Item 2 sym_record_type]),
       (2709, [Item 1 aux_sym_type_arguments_repeat1, Item 3 sym_type_arguments]), (2710,
       [Item 1 sym_configuration_uri_condition]), (2711,
       [Item 1 aux_sym__for_loop_parts_repeat1, Item 2 aux_sym__for_loop_parts_repeat1]), (2712,
       [Item 2 sym_combinator]), (2713, [Item 3 sym__top_level_definition]), (2714,
       [Item 1 aux_sym_inferred_parameters_repeat1, Item 2 sym_identifier_list]), (2715,
       [Item 1 aux_sym_parameter_type_list_repeat1, Item 3 sym_parameter_type_list]), (2716,
       [Item 1 sym_identifier_list]), (2717, [Item 3 sym_extension_declaration]), (2718,
       [Item 5 sym_record_type]), (2719, [Item 2 sym_named_parameter_types]), (2720,
       [Item 2 sym_operator_signature]), (2721, [Item 1 aux_sym_type_arguments_repeat1,
       Item 3 sym_type_arguments]), (2722, [Item 2 sym_optional_positional_parameter_types]),
       (2723, [Item 2 sym_type_arguments]), (2724, [Item 1 aux_sym_record_type_repeat2,
       Item 6 sym_record_type]), (2725, [Item 6 sym_record_type]), (2726,
       [Item 2 sym_initializers]), (2727, [Item 2 sym_normal_parameter_type]), (2728,
       [Item 1 aux_sym_parameter_type_list_repeat1, Item 3 sym_parameter_type_list]), (2729,
       [Item 1 aux_sym_type_parameters_repeat1, Item 3 sym_type_parameters]), (2730,
       [Item 2 sym_parameter_type_list]), (2731, [Item 3 sym_operator_signature]), (2732,
       [Item 2 sym_type_arguments]), (2733, [Item 1 aux_sym_library_export_repeat1]), (2734,
       [Item 1 aux_sym_record_type_repeat2, Item 2 aux_sym_record_type_repeat2]), (2735,
       [Item 5 sym_record_type]), (2736, [Item 1 aux_sym__argument_list_repeat1,
       Item 2 sym__argument_list]), (2737, [Item 1 sym__top_level_definition]), (2738,
       [Item 2 sym_type_parameters]), (2739, [Item 1 aux_sym_record_type_repeat2,
       Item 7 sym_record_type]), (2740, [Item 1 aux_sym_list_literal_repeat1,
       Item 5 sym_constant_pattern, Item 5 sym_set_or_map_literal]), (2741,
       [Item 2 sym_enum_constant]), (2742, [Item 2 sym_enum_constant]), (2743,
       [Item 1 sym_argument_part, Item 2 sym_enum_constant]), (2744,
       [Item 2 sym_initializer_list_entry]), (2745, [Item 1 aux_sym_record_pattern_repeat1,
       Item 4 sym_object_pattern]), (2746, [Item 1 aux_sym_list_literal_repeat1,
       Item 5 sym_constant_pattern, Item 5 sym_list_literal]), (2747,
       [Item 1 aux_sym_list_literal_repeat1, Item 4 sym_constant_pattern]), (2748,
       [Item 1 aux_sym_list_literal_repeat1, Item 4 sym_constant_pattern]), (2749,
       [Item 4 sym_constant_pattern]), (2750, [Item 1 sym__normal_formal_parameters]), (2751,
       [Item 1 aux_sym_record_type_repeat1, Item 3 sym_record_type]), (2752,
       [Item 4 sym_constant_pattern]), (2753, [Item 1 aux_sym_list_pattern_repeat1,
       Item 2 aux_sym_list_pattern_repeat1]), (2754, [Item 2 sym_record_pattern]), (2755,
       [Item 1 sym__final_const_var_or_type]), (2756, [Item 1 sym__function_formal_parameter,
       Item 1 sym__var_or_type]), (2757, [Item 1 aux_sym_list_literal_repeat1,
       Item 4 sym_set_or_map_literal]), (2758, [Item 1 aux_sym_switch_expression_repeat1,
       Item 2 aux_sym_switch_expression_repeat1]), (2759, [Item 2 sym_parameter_type_list]),
       (2760, [Item 3 sym__guarded_pattern]), (2761, [Item 1 aux_sym_type_parameters_repeat1,
       Item 2 aux_sym_type_parameters_repeat1]), (2762, [Item 3 sym_record_type]), (2763,
       [Item 1 aux_sym__for_loop_parts_repeat2, Item 4 sym__for_loop_parts]), (2764,
       [Item 4 sym__for_loop_parts]), (2765,
       [Item 1 aux_sym_static_final_declaration_list_repeat1,
       Item 2 sym_static_final_declaration_list]), (2766, [Item 1 aux_sym_list_literal_repeat1,
       Item 4 sym_list_literal]), (2767, [Item 1 sym__class_modifiers,
       Item 1 sym__mixin_class_modifiers, Item 1 sym_mixin_declaration]), (2768,
       [Item 1 aux_sym_record_type_repeat2, Item 4 sym_record_type]), (2769,
       [Item 1 sym_function_expression_body]), (2770, [Item 1 sym_normal_parameter_type]),
       (2771, [Item 2 sym_list_pattern]), (2772, [Item 4 sym__for_loop_parts]), (2773,
       [Item 1 aux_sym__named_formal_parameters_repeat1, Item 3 sym__named_formal_parameters]),
       (2774, [Item 1 aux_sym_list_literal_repeat1, Item 5 sym_list_literal]), (2775,
       [Item 1 aux_sym_list_literal_repeat1, Item 5 sym_set_or_map_literal]), (2776,
       [Item 1 aux_sym__for_loop_parts_repeat2, Item 4 sym__for_loop_parts]), (2777,
       [Item 1 aux_sym_positional_parameters_repeat1,
       Item 3 sym__optional_postional_formal_parameters]), (2778, [Item 2 sym_type_parameters]),
       (2779, [Item 1 sym_type_parameter]), (2780, [Item 1 aux_sym_switch_expression_repeat1,
       Item 5 sym_switch_expression]), (2781, [Item 4 sym__for_loop_parts]), (2782,
       [Item 4 sym_list_literal]), (2783, [Item 1 sym__set]), (2784,
       [Item 4 sym_set_or_map_literal]), (2785, [Item 1 aux_sym_list_literal_repeat1,
       Item 4 sym_list_literal]), (2786, [Item 2 sym_list_literal]), (2787,
       [Item 1 aux_sym_list_literal_repeat1, Item 4 sym_set_or_map_literal]), (2788,
       [Item 1 aux_sym__normal_formal_parameters_repeat1,
       Item 2 aux_sym__normal_formal_parameters_repeat1]), (2789,
       [Item 3 sym__final_const_var_or_type]), (2790, [Item 4 sym_set_or_map_literal]), (2791,
       [Item 2 sym__optional_postional_formal_parameters]), (2792,
       [Item 4 sym_switch_expression]), (2793, [Item 1 aux_sym__for_loop_parts_repeat2,
       Item 2 aux_sym__for_loop_parts_repeat2]), (2794, [Item 2 sym_record_type]), (2795,
       [Item 4 sym_list_literal]), (2796, [Item 1 aux_sym__for_loop_parts_repeat2,
       Item 4 sym__for_loop_parts]), (2797, [Item 3 sym_constant_pattern,
       Item 3 sym_list_literal]), (2798, [Item 2 sym_map_pattern]), (2799,
       [Item 2 sym_declaration]), (2800, [Item 5 sym_record_type]), (2801,
       [Item 3 sym_constant_pattern, Item 3 sym_set_or_map_literal]), (2802,
       [Item 3 sym_list_literal]), (2803, [Item 3 sym_set_or_map_literal]), (2804,
       [Item 3 sym_record_type]), (2805, [Item 1 aux_sym__record_literal_no_const_repeat1,
       Item 3 sym__record_literal_no_const]), (2806, [Item 1 aux_sym_list_literal_repeat1,
       Item 3 sym_list_literal]), (2807, [Item 2 sym_operator_signature]), (2808,
       [Item 1 aux_sym_map_pattern_repeat1, Item 2 aux_sym_map_pattern_repeat1]), (2809,
       [Item 1 aux_sym_list_literal_repeat1, Item 3 sym_set_or_map_literal]), (2810,
       [Item 1 aux_sym_record_type_repeat1, Item 3 sym_record_type]), (2811,
       [Item 1 aux_sym_switch_expression_repeat1, Item 5 sym_switch_expression]), (2812,
       [Item 1 aux_sym_parameter_type_list_repeat1, Item 3 sym_parameter_type_list]), (2813,
       [Item 1 aux_sym_type_arguments_repeat1, Item 3 sym_type_arguments]), (2814,
       [Item 1 sym__sub_string_test, Item 1 sym_template_substitution]), (2815,
       [Item 1 aux_sym_record_type_repeat2, Item 6 sym_record_type]), (2816,
       [Item 6 sym_record_type]), (2817, [Item 2 sym_set_or_map_literal]), (2818,
       [Item 1 sym_function_expression_body]), (2819, [Item 1 aux_sym_map_pattern_repeat1,
       Item 4 sym_map_pattern]), (2820, [Item 6 sym_enum_constant]), (2821,
       [Item 1 aux_sym_record_type_repeat2, Item 7 sym_record_type]), (2822,
       [Item 1 sym_record_type_field]), (2823, [Item 2 sym_type_parameters]), (2824,
       [Item 1 aux_sym_list_pattern_repeat1, Item 4 sym_list_pattern]), (2825,
       [Item 3 sym_record_type]), (2826, [Item 1 sym_constructor_invocation,
       Item 1 sym_constructor_tearoff]), (2827, [Item 2 sym_record_type]), (2828,
       [Item 2 sym_list_literal]), (2829, [Item 1 aux_sym_record_type_repeat2,
       Item 4 sym_record_type]), (2830, [Item 2 sym_set_or_map_literal]), (2831,
       [Item 1 aux_sym_type_parameters_repeat1, Item 3 sym_type_parameters]), (2832,
       [Item 2 sym_parameter_type_list]), (2833, [Item 2 sym_type_arguments]), (2834,
       [Item 1 sym__get]), (2835, [Item 3 sym_constant_pattern]), (2836,
       [Item 4 sym__top_level_definition]), (2837, [Item 3 sym_constant_pattern]), (2838,
       [Item 2 aux_sym_list_literal_repeat1]), (2839, [Item 1 aux_sym_list_literal_repeat1,
       Item 5 sym_set_or_map_literal]), (2840, [Item 3 sym_getter_signature]), (2841,
       [Item 3 sym_function_signature]), (2842, [Item 2 sym_type_arguments]), (2843,
       [Item 2 sym_parameter_type_list]), (2844, [Item 5 sym_record_type]), (2845,
       [Item 3 sym_setter_signature]), (2846, [Item 1 aux_sym_list_literal_repeat1,
       Item 3 sym_set_or_map_literal]), (2847,
       [Item 1 aux_sym_initialized_identifier_list_repeat1,
       Item 4 sym_initialized_variable_definition]), (2848, [Item 1 aux_sym_map_pattern_repeat1,
       Item 3 sym_map_pattern]), (2849, [Item 2 sym_type_parameters]), (2850,
       [Item 1 aux_sym_record_type_repeat2, Item 6 sym_record_type]), (2851,
       [Item 1 aux_sym_type_parameters_repeat1, Item 3 sym_type_parameters])]"

definition lr_items_20 :: "(TSStateId \<times> lr_item list) list" where
  "lr_items_20 = [
     (2852, [Item 2 sym_set_or_map_literal]), (2853, [Item 2 sym_list_literal]), (2854,
       [Item 1 aux_sym_list_literal_repeat1, Item 5 sym_constant_pattern]), (2855,
       [Item 1 aux_sym_list_literal_repeat1, Item 5 sym_constant_pattern]), (2856,
       [Item 6 sym_record_type]), (2857, [Item 1 aux_sym__for_loop_parts_repeat2,
       Item 5 sym__for_loop_parts]), (2858, [Item 5 sym__for_loop_parts]), (2859,
       [Item 1 sym_constructor_invocation, Item 1 sym_constructor_tearoff]), (2860,
       [Item 4 sym_constant_pattern, Item 4 sym_list_literal]), (2861,
       [Item 1 aux_sym__for_loop_parts_repeat2, Item 5 sym__for_loop_parts]), (2862,
       [Item 1 aux_sym_list_literal_repeat1, Item 3 sym_list_literal]), (2863,
       [Item 1 aux_sym_list_pattern_repeat1, Item 3 sym_list_pattern]), (2864,
       [Item 1 sym__sub_string_test, Item 1 sym_template_substitution]), (2865,
       [Item 1 aux_sym_record_type_repeat2, Item 7 sym_record_type]), (2866,
       [Item 1 aux_sym__for_loop_parts_repeat2, Item 5 sym__for_loop_parts]), (2867,
       [Item 4 sym_constant_pattern, Item 4 sym_set_or_map_literal]), (2868,
       [Item 1 sym__function_formal_parameter, Item 1 sym__var_or_type,
       Item 1 sym_typed_identifier]), (2869, [Item 1 aux_sym_list_literal_repeat1,
       Item 4 sym_constant_pattern, Item 4 sym_list_literal]), (2870,
       [Item 1 aux_sym_record_type_repeat1, Item 3 sym_record_type]), (2871,
       [Item 1 aux_sym__record_literal_no_const_repeat1, Item 3 sym__record_literal_no_const]),
       (2872, [Item 3 sym_record_type]), (2873, [Item 1 aux_sym_named_parameter_types_repeat1,
       Item 2 aux_sym_named_parameter_types_repeat1]), (2874,
       [Item 1 aux_sym__for_loop_parts_repeat2, Item 6 sym__for_loop_parts]), (2875,
       [Item 1 aux_sym_record_type_repeat2, Item 4 sym_record_type]), (2876,
       [Item 1 sym__sub_string_test, Item 1 sym_template_substitution]), (2877,
       [Item 4 sym_object_pattern]), (2878, [Item 2 sym_record_type]), (2879,
       [Item 6 sym__for_loop_parts]), (2880, [Item 1 aux_sym__for_loop_parts_repeat2,
       Item 6 sym__for_loop_parts]), (2881, [Item 1 sym_function_expression_body]), (2882,
       [Item 1 aux_sym_list_literal_repeat1, Item 5 sym_list_literal]), (2883,
       [Item 1 aux_sym_record_type_repeat2, Item 4 sym_record_type]), (2884,
       [Item 4 sym_setter_signature]), (2885, [Item 1 aux_sym_type_arguments_repeat1,
       Item 3 sym_type_arguments]), (2886, [Item 1 aux_sym_record_pattern_repeat1,
       Item 3 sym_record_pattern]), (2887, [Item 1 aux_sym_parameter_type_list_repeat1,
       Item 3 sym_parameter_type_list]), (2888, [Item 1 aux_sym_list_literal_repeat1,
       Item 5 sym_set_or_map_literal]), (2889, [Item 1 aux_sym__for_loop_parts_repeat2,
       Item 7 sym__for_loop_parts]), (2890, [Item 1 aux_sym_list_literal_repeat1,
       Item 4 sym_constant_pattern, Item 4 sym_set_or_map_literal]), (2891,
       [Item 1 aux_sym_list_literal_repeat1, Item 3 sym_set_or_map_literal]), (2892,
       [Item 1 aux_sym_switch_expression_repeat1, Item 5 sym_switch_expression]), (2893,
       [Item 1 aux_sym_list_literal_repeat1, Item 3 sym_list_literal]), (2894,
       [Item 1 aux_sym__record_literal_no_const_repeat1, Item 3 sym__record_literal_no_const]),
       (2895, [Item 2 sym_extension_declaration]), (2896, [Item 4 sym_list_literal]), (2897,
       [Item 4 sym_set_or_map_literal]), (2898, [Item 2 sym__final_const_var_or_type,
       Item 2 sym__final_var_or_type]), (2899, [Item 1 aux_sym_list_literal_repeat1,
       Item 4 sym_list_literal]), (2900, [Item 1 aux_sym_record_type_repeat1,
       Item 3 sym_record_type]), (2901, [Item 3 sym_set_or_map_literal]), (2902,
       [Item 3 sym_list_literal]), (2903, [Item 1 aux_sym_list_literal_repeat1,
       Item 4 sym_set_or_map_literal]), (2904, [Item 4 sym_switch_expression]), (2905,
       [Item 5 sym_record_type]), (2906, [Item 3 sym_constructor_invocation,
       Item 3 sym_constructor_tearoff]), (2907, [Item 1 aux_sym_record_type_repeat2,
       Item 6 sym_record_type]), (2908, [Item 3 sym_declaration]), (2909,
       [Item 3 sym_list_literal]), (2910, [Item 2 sym_record_type_field]), (2911,
       [Item 3 sym_set_or_map_literal]), (2912, [Item 6 sym_record_type]), (2913,
       [Item 1 aux_sym__record_literal_no_const_repeat1, Item 3 sym__record_literal_no_const]),
       (2914, [Item 3 sym_constructor_invocation, Item 3 sym_constructor_tearoff]), (2915,
       [Item 1 aux_sym_list_literal_repeat1, Item 3 sym_list_literal]), (2916,
       [Item 1 sym_static_final_declaration_list]), (2917, [Item 1 aux_sym_list_literal_repeat1,
       Item 3 sym_set_or_map_literal]), (2918, [Item 2 sym__top_level_definition]), (2919,
       [Item 1 aux_sym_parameter_type_list_repeat1, Item 3 sym_parameter_type_list]), (2920,
       [Item 1 sym_initializer_list_entry]), (2921, [Item 3 sym_operator_signature]), (2922,
       [Item 1 aux_sym_record_type_repeat1, Item 2 aux_sym_record_type_repeat1]), (2923,
       [Item 1 aux_sym_type_arguments_repeat1, Item 3 sym_type_arguments]), (2924,
       [Item 1 aux_sym_record_type_repeat2, Item 7 sym_record_type]), (2925,
       [Item 4 sym_switch_expression]), (2926, [Item 1 sym_function_expression_body]), (2927,
       [Item 1 aux_sym_list_literal_repeat1, Item 4 sym_set_or_map_literal]), (2928,
       [Item 1 aux_sym_list_literal_repeat1, Item 4 sym_list_literal]), (2929,
       [Item 4 sym_set_or_map_literal]), (2930, [Item 4 sym_list_literal]), (2931,
       [Item 1 sym__argument_list]), (2932, [Item 1 sym__formal_parameter_part]), (2933,
       [Item 3 sym_record_type]), (2934, [Item 1 sym_declaration]), (2935,
       [Item 3 sym_declaration]), (2936, [Item 3 sym_operator_signature]), (2937,
       [Item 1 aux_sym_record_type_repeat2, Item 4 sym_record_type]), (2938,
       [Item 5 sym_record_type]), (2939, [Item 1 aux_sym_initializers_repeat1,
       Item 3 sym_initializers]), (2940, [Item 4 sym_operator_signature]), (2941,
       [Item 1 sym_initializer_list_entry]), (2942, [Item 1 aux_sym_switch_expression_repeat1,
       Item 5 sym_switch_expression]), (2943, [Item 1 sym__var_or_type]), (2944,
       [Item 3 sym_constructor_invocation, Item 3 sym_constructor_tearoff]), (2945,
       [Item 1 aux_sym_list_literal_repeat1, Item 5 sym_set_or_map_literal]), (2946,
       [Item 1 aux_sym_list_literal_repeat1, Item 5 sym_list_literal]), (2947,
       [Item 1 sym_field_initializer, Item 2 sym_redirection]), (2948,
       [Item 1 aux_sym_record_type_repeat2, Item 6 sym_record_type]), (2949,
       [Item 1 sym_constructor_invocation, Item 1 sym_constructor_tearoff]), (2950,
       [Item 1 aux_sym_initializers_repeat1, Item 2 aux_sym_initializers_repeat1]), (2951,
       [Item 3 sym_constructor_signature]), (2952, [Item 5 sym__for_loop_parts]), (2953,
       [Item 3 sym_set_or_map_literal]), (2954, [Item 3 sym_list_literal]), (2955,
       [Item 2 sym_list_literal]), (2956, [Item 2 sym_set_or_map_literal]), (2957,
       [Item 2 sym__class_modifiers, Item 2 sym__mixin_class_modifiers]), (2958,
       [Item 1 aux_sym_type_parameters_repeat1, Item 3 sym_type_parameters]), (2959,
       [Item 2 sym_parameter_type_list]), (2960, [Item 2 sym_type_arguments]), (2961,
       [Item 6 sym_record_type]), (2962, [Item 4 sym_declaration]), (2963,
       [Item 1 aux_sym__normal_formal_parameters_repeat1,
       Item 2 sym__normal_formal_parameters]), (2964,
       [Item 1 aux_sym_positional_parameters_repeat1,
       Item 2 aux_sym_positional_parameters_repeat1]), (2965, [Item 2 sym__var_or_type]), (2966,
       [Item 2 sym_type_parameters]), (2967, [Item 1 aux_sym_record_type_repeat2,
       Item 7 sym_record_type]), (2968, [Item 2 sym_initializer_list_entry]), (2969,
       [Item 1 aux_sym_record_type_repeat2, Item 6 sym_record_type]), (2970,
       [Item 2 sym__top_level_definition]), (2971, [Item 2 sym_mixins]), (2972,
       [Item 3 sym_list_pattern]), (2973, [Item 4 sym_constant_constructor_signature]), (2974,
       [Item 6 sym_record_type]), (2975, [Item 1 sym_initialized_identifier]), (2976,
       [Item 1 aux_sym_static_final_declaration_list_repeat1,
       Item 2 aux_sym_static_final_declaration_list_repeat1]), (2977,
       [Item 1 aux_sym_record_type_repeat1, Item 3 sym_record_type]), (2978,
       [Item 3 sym_initialized_variable_definition]), (2979,
       [Item 1 aux_sym__named_formal_parameters_repeat1,
       Item 2 aux_sym__named_formal_parameters_repeat1]), (2980, [Item 3 sym_object_pattern]),
       (2981, [Item 3 sym_constructor_invocation, Item 3 sym_constructor_tearoff]), (2982,
       [Item 1 sym__default_formal_parameter]), (2983, [Item 1 aux_sym__argument_list_repeat1,
       Item 2 aux_sym__argument_list_repeat1]), (2984, [Item 1 sym__final_var_or_type,
       Item 1 sym_record_type_field]), (2985, [Item 2 sym_record_type]), (2986,
       [Item 3 sym_map_pattern]), (2987, [Item 2 sym__final_const_var_or_type]), (2988,
       [Item 1 sym__sub_string_test, Item 1 sym_template_substitution]), (2989,
       [Item 1 aux_sym_type_arguments_repeat1, Item 2 aux_sym_type_arguments_repeat1]), (2990,
       [Item 3 sym_enum_constant]), (2991, [Item 1 sym_initialized_identifier_list]), (2992,
       [Item 2 aux_sym_enum_body_repeat1]), (2993, [Item 1 aux_sym_type_parameters_repeat1,
       Item 3 sym_type_parameters]), (2994, [Item 1 sym_field_initializer,
       Item 2 sym_redirection]), (2995, [Item 1 sym_function_body]), (2996,
       [Item 4 sym_enum_constant]), (2997, [Item 2 sym__named_formal_parameters]), (2998,
       [Item 4 sym_enum_constant]), (2999, [Item 3 sym_enum_constant]), (3000,
       [Item 1 aux_sym_record_type_repeat2, Item 7 sym_record_type]), (3001,
       [Item 1 sym__class_modifiers, Item 1 sym__mixin_class_modifiers,
       Item 2 sym_mixin_declaration])]"

definition lr_items_21 :: "(TSStateId \<times> lr_item list) list" where
  "lr_items_21 = [
     (3002, [Item 1 aux_sym_named_parameter_types_repeat1, Item 3 sym_named_parameter_types]),
       (3003, [Item 3 sym_enum_constant]), (3004, [Item 1 aux_sym_parameter_type_list_repeat1,
       Item 3 sym_optional_positional_parameter_types]), (3005,
       [Item 2 aux_sym_parameter_type_list_repeat1]), (3006, [Item 1 sym_argument_part,
       Item 3 sym_enum_constant]), (3007, [Item 1 sym_annotation]), (3008,
       [Item 3 sym_type_parameter]), (3009, [Item 1 sym_cascade_selector]), (3010,
       [Item 1 sym_switch_expression]), (3011, [Item 1 sym_switch_expression]), (3012,
       [Item 1 sym_switch_expression]), (3013, [Item 2 aux_sym_named_parameter_types_repeat1]),
       (3014, [Item 1 sym__pattern_field]), (3015, [Item 1 sym__map_pattern_entry]), (3016,
       [Item 3 sym__named_parameter_type]), (3017, [Item 3 sym_new_expression]), (3018,
       [Item 2 aux_sym_type_arguments_repeat1]), (3019, [Item 2 sym_constructor_invocation,
       Item 2 sym_constructor_tearoff]), (3020, [Item 4 sym_extension_declaration]), (3021,
       [Item 1 sym_uri_test]), (3022, [Item 1 sym_function_body]), (3023,
       [Item 4 sym_extension_declaration]), (3024, [Item 2 sym__named_parameter_type]), (3025,
       [Item 4 sym_enum_constant]), (3026, [Item 1 sym__mixin_class_modifiers,
       Item 2 sym_mixin_declaration]), (3027, [Item 4 sym_enum_constant]), (3028,
       [Item 2 sym_type_parameter]), (3029, [Item 4 sym__default_named_parameter]), (3030,
       [Item 2 aux_sym__argument_list_repeat1]), (3031,
       [Item 2 aux_sym_static_final_declaration_list_repeat1]), (3032,
       [Item 2 sym_class_definition]), (3033, [Item 3 sym_enum_constant]), (3034,
       [Item 3 sym_static_final_declaration]), (3035, [Item 4 sym_type_parameter]), (3036,
       [Item 4 sym_type_parameter]), (3037, [Item 2 aux_sym_extension_body_repeat1]), (3038,
       [Item 3 sym__default_named_parameter]), (3039, [Item 3 sym_factory_constructor_signature,
       Item 4 sym_redirecting_factory_constructor_signature]), (3040,
       [Item 2 aux_sym__named_formal_parameters_repeat1]), (3041,
       [Item 3 sym__default_formal_parameter]), (3042, [Item 4 sym_enum_declaration]), (3043,
       [Item 4 sym_declaration]), (3044, [Item 2 sym_library_name]), (3045,
       [Item 1 sym_annotation]), (3046, [Item 2 sym_function_body]), (3047,
       [Item 7 sym_mixin_declaration]), (3048, [Item 2 aux_sym_positional_parameters_repeat1]),
       (3049, [Item 1 aux_sym_enum_body_repeat2]), (3050, [Item 3 sym_const_object_expression]),
       (3051, [Item 1 sym__any_argument]), (3052, [Item 1 sym_argument_part]), (3053,
       [Item 2 sym__mixin_class_modifiers, Item 2 sym_mixin_declaration]), (3054,
       [Item 3 sym_constant_constructor_signature]), (3055, [Item 1 sym_argument]), (3056,
       [Item 2 aux_sym_record_type_repeat1]), (3057, [Item 3 sym_mixin_application_class]),
       (3058, [Item 1 sym_mixin_application]), (3059, [Item 3 sym_record_type_field]), (3060,
       [Item 4 sym_constructor_invocation]), (3061, [Item 3 sym_new_expression]), (3062,
       [Item 4 sym_class_definition]), (3063, [Item 4 sym_class_definition]), (3064,
       [Item 1 sym_record_field, Item 2 sym__record_literal_no_const,
       Item 2 sym_parenthesized_expression]), (3065, [Item 2 sym_interfaces]), (3066,
       [Item 3 sym_initializer_list_entry]), (3067, [Item 4 sym_extension_declaration]), (3068,
       [Item 1 sym__identifier_or_new, Item 3 sym_field_initializer]), (3069,
       [Item 2 sym_record_type_named_field]), (3070, [Item 1 sym_postfix_expression]), (3071,
       [Item 2 sym_assertion_arguments]), (3072, [Item 2 sym_type_alias]), (3073,
       [Item 4 sym__top_level_definition]), (3074, [Item 4 sym_class_definition]), (3075,
       [Item 4 sym_mixin_declaration]), (3076, [Item 1 sym_library_name]), (3077,
       [Item 1 sym_conditional_assignable_selector]), (3078, [Item 3 sym_mixin_declaration]),
       (3079, [Item 2 sym_list_literal, Item 2 sym_set_or_map_literal]), (3080,
       [Item 4 sym_constructor_invocation]), (3081, [Item 1 sym_list_literal,
       Item 1 sym_set_or_map_literal]), (3082, [Item 2 sym_constructor_invocation,
       Item 2 sym_constructor_tearoff]), (3083, [Item 1 sym_argument_part]), (3084,
       [Item 1 sym_function_expression_body]), (3085, [Item 2 sym__record_literal_no_const]),
       (3086, [Item 3 sym_yield_each_statement]), (3087, [Item 1 sym_for_element,
       Item 1 sym_for_statement]), (3088, [Item 3 sym_do_statement]), (3089,
       [Item 2 sym_catch_parameters]), (3090, [Item 3 sym__on_part]), (3091,
       [Item 2 sym_record_field]), (3092, [Item 4 sym_enum_declaration]), (3093,
       [Item 3 sym_import_specification]), (3094, [Item 1 sym_for_element]), (3095,
       [Item 5 sym_extension_declaration]), (3096, [Item 1 sym_base]), (3097,
       [Item 2 sym_list_literal, Item 2 sym_set_or_map_literal]), (3098,
       [Item 2 sym_record_field, Item 3 sym__record_literal_no_const]), (3099,
       [Item 1 sym__list_pattern_element]), (3100, [Item 1 sym_list_literal,
       Item 1 sym_set_or_map_literal]), (3101, [Item 1 sym_record_type_named_field]), (3102,
       [Item 1 sym_cascade_selector]), (3103, [Item 1 sym_mixin]), (3104,
       [Item 2 sym__top_level_definition]), (3105, [Item 2 sym__record_literal_no_const]),
       (3106, [Item 3 sym_const_object_expression]), (3107, [Item 2 sym_part_of_directive]),
       (3108, [Item 2 sym__record_literal_no_const]), (3109, [Item 1 sym_list_literal,
       Item 1 sym_list_pattern, Item 1 sym_map_pattern, Item 1 sym_set_or_map_literal]), (3110,
       [Item 1 sym_cascade_selector]), (3111, [Item 1 sym_record_field,
       Item 2 sym__record_literal_no_const, Item 2 sym_parenthesized_expression]), (3112,
       [Item 2 sym_record_type_field]), (3113, [Item 3 sym_new_expression]), (3114,
       [Item 1 sym__pattern_field, Item 2 sym__parenthesized_pattern]), (3115,
       [Item 1 sym_list_literal, Item 1 sym_set_or_map_literal]), (3116,
       [Item 7 sym_if_statement]), (3117, [Item 2 sym_library_name]), (3118,
       [Item 3 sym_const_object_expression]), (3119, [Item 2 sym_for_statement]), (3120,
       [Item 2 sym_record_field, Item 3 sym__record_literal_no_const]), (3121,
       [Item 5 sym_if_statement]), (3122, [Item 1 sym_postfix_expression]), (3123,
       [Item 2 sym_switch_expression, Item 2 sym_switch_statement]), (3124,
       [Item 2 sym_record_field, Item 3 sym__record_literal_no_const]), (3125,
       [Item 1 sym_combinator]), (3126, [Item 1 sym_argument_part]), (3127,
       [Item 4 sym_constructor_invocation]), (3128, [Item 1 sym_configuration_uri]), (3129,
       [Item 2 sym_continue_statement]), (3130, [Item 2 sym_yield_statement]), (3131,
       [Item 2 sym_type_parameter]), (3132, [Item 3 sym_if_statement]), (3133,
       [Item 2 sym_break_statement]), (3134, [Item 2 sym__for_loop_parts]), (3135,
       [Item 2 sym_list_literal, Item 2 sym_set_or_map_literal]), (3136,
       [Item 2 sym__for_loop_parts, Item 2 sym_pattern_variable_declaration]), (3137,
       [Item 2 sym_constructor_invocation, Item 2 sym_constructor_tearoff,
       Item 2 sym_object_pattern]), (3138, [Item 2 sym_return_statement]), (3139,
       [Item 2 sym_part_directive]), (3140, [Item 1 sym_conditional_assignable_selector]),
       (3141, [Item 2 sym_list_literal, Item 2 sym_set_or_map_literal]), (3142,
       [Item 1 sym_function_expression_body]), (3143, [Item 2 sym_constructor_invocation,
       Item 2 sym_constructor_tearoff]), (3144, [Item 2 sym_for_statement]), (3145,
       [Item 3 sym_annotation]), (3146, [Item 1 sym_list_literal,
       Item 1 sym_set_or_map_literal]), (3147, [Item 6 sym_enum_declaration]), (3148,
       [Item 4 sym_do_statement]), (3149, [Item 1 sym_switch_expression]), (3150,
       [Item 2 sym__record_literal_no_const]), (3151, [Item 6 sym_extension_declaration])]"

definition lr_items_22 :: "(TSStateId \<times> lr_item list) list" where
  "lr_items_22 = [
     (3152, [Item 1 sym_catch_clause]), (3153, [Item 1 sym_finally_clause]), (3154,
       [Item 7 sym_redirecting_factory_constructor_signature]), (3155,
       [Item 4 sym_assertion_arguments]), (3156, [Item 1 sym__on_part]), (3157,
       [Item 6 sym_class_definition]), (3158, [Item 1 sym_conditional_assignable_selector]),
       (3159, [Item 2 sym__pattern_field]), (3160, [Item 2 sym_local_variable_declaration]),
       (3161, [Item 1 sym_list_literal, Item 1 sym_list_pattern, Item 1 sym_map_pattern,
       Item 1 sym_set_or_map_literal]), (3162, [Item 1 sym_postfix_expression]), (3163,
       [Item 2 sym_constant_pattern, Item 2 sym_list_literal, Item 2 sym_set_or_map_literal]),
       (3164, [Item 1 sym_for_statement]), (3165, [Item 2 sym_for_element]), (3166,
       [Item 6 sym_mixin_declaration]), (3167, [Item 1 sym_while_statement]), (3168,
       [Item 2 sym_rest_pattern]), (3169, [Item 1 sym_record_field,
       Item 2 sym__record_literal_no_const, Item 2 sym_parenthesized_expression]), (3170,
       [Item 2 sym_constructor_invocation, Item 2 sym_constructor_tearoff]), (3171,
       [Item 1 sym_list_pattern, Item 1 sym_map_pattern]), (3172,
       [Item 1 sym__named_parameter_type]), (3173, [Item 3 sym_if_element,
       Item 3 sym_if_statement]), (3174, [Item 1 sym_conditional_assignable_selector]), (3175,
       [Item 1 sym_conditional_assignable_selector]), (3176,
       [Item 1 sym_local_variable_declaration]), (3177, [Item 2 sym_for_element,
       Item 2 sym_for_statement]), (3178, [Item 5 sym__top_level_definition]), (3179,
       [Item 1 sym_conditional_assignable_selector]), (3180,
       [Item 2 aux_sym__for_loop_parts_repeat1]), (3181,
       [Item 1 sym_conditional_assignable_selector]), (3182, [Item 1 sym__outer_pattern]),
       (3183, [Item 1 sym_conditional_assignable_selector]), (3184,
       [Item 2 aux_sym_record_pattern_repeat1]), (3185, [Item 5 sym_mixin_declaration]), (3186,
       [Item 5 sym_class_definition]), (3187, [Item 5 sym_class_definition]), (3188,
       [Item 1 sym_record_field, Item 2 sym__record_literal_no_const,
       Item 2 sym_parenthesized_expression]), (3189, [Item 1 sym__identifier_or_new,
       Item 3 sym_field_initializer]), (3190,
       [Item 2 aux_sym__normal_formal_parameters_repeat1]), (3191,
       [Item 3 sym__map_pattern_entry]), (3192, [Item 5 sym_extension_declaration]), (3193,
       [Item 5 sym_enum_declaration]), (3194, [Item 1 sym_postfix_expression]), (3195,
       [Item 1 sym_class_definition]), (3196, [Item 1 sym_conditional_assignable_selector]),
       (3197, [Item 5 sym_class_definition]), (3198,
       [Item 6 sym_redirecting_factory_constructor_signature]), (3199,
       [Item 4 sym_mixin_application_class]), (3200, [Item 1 sym_list_literal,
       Item 1 sym_list_pattern, Item 1 sym_map_pattern, Item 1 sym_set_or_map_literal]), (3201,
       [Item 1 sym_conditional_assignable_selector]), (3202,
       [Item 1 sym_function_expression_body]), (3203, [Item 1 sym_expression_statement]), (3204,
       [Item 3 sym_superclass]), (3205, [Item 1 sym_function_expression_body]), (3206,
       [Item 1 sym_conditional_assignable_selector]), (3207, [Item 3 sym_if_statement]), (3208,
       [Item 1 sym_assertion]), (3209, [Item 3 sym_annotation]), (3210,
       [Item 1 sym_for_statement]), (3211, [Item 2 sym_constructor_invocation,
       Item 2 sym_constructor_tearoff, Item 2 sym_object_pattern]), (3212,
       [Item 2 aux_sym_map_pattern_repeat1]), (3213, [Item 1 sym__try_head]), (3214,
       [Item 1 sym_while_statement]), (3215, [Item 1 sym_conditional_assignable_selector]),
       (3216, [Item 1 sym_switch_expression, Item 1 sym_switch_statement]), (3217,
       [Item 3 sym_function_body]), (3218, [Item 2 sym_record_field,
       Item 3 sym__record_literal_no_const]), (3219, [Item 3 sym_if_element]), (3220,
       [Item 1 sym_record_field]), (3221, [Item 1 sym_getter_signature]), (3222,
       [Item 3 sym_initialized_identifier]), (3223,
       [Item 2 aux_sym_initialized_identifier_list_repeat1]), (3224, [Item 3 sym_type_alias]),
       (3225, [Item 5 sym_enum_constant]), (3226, [Item 3 sym_const_object_expression]), (3227,
       [Item 2 sym__mixin_class_modifiers, Item 3 sym_mixin_declaration]), (3228,
       [Item 5 sym__default_named_parameter]), (3229, [Item 1 sym_operator_signature]), (3230,
       [Item 5 sym_constant_constructor_signature]), (3231, [Item 3 sym_new_expression]), (3232,
       [Item 4 sym_factory_constructor_signature,
       Item 5 sym_redirecting_factory_constructor_signature]), (3233,
       [Item 1 aux_sym_initialized_identifier_list_repeat1]), (3234,
       [Item 2 aux_sym__record_literal_no_const_repeat1]), (3235, [Item 4 sym_redirection]),
       (3236, [Item 3 sym_initializer_list_entry]), (3237, [Item 2 aux_sym_enum_body_repeat2]),
       (3238, [Item 3 sym_const_object_expression]), (3239, [Item 2 sym_declaration]), (3240,
       [Item 3 sym_part_of_directive]), (3241, [Item 3 sym_library_name]), (3242,
       [Item 3 sym_part_directive]), (3243, [Item 3 sym_enum_declaration]), (3244,
       [Item 4 sym_constructor_invocation]), (3245, [Item 3 sym_class_definition]), (3246,
       [Item 1 sym_conditional_assignable_selector]), (3247,
       [Item 2 aux_sym__for_loop_parts_repeat2]), (3248, [Item 1 sym_superclass]), (3249,
       [Item 1 sym_postfix_expression]), (3250, [Item 1 sym__mixin_class_modifiers,
       Item 1 sym_mixin_declaration]), (3251, [Item 3 sym_extension_declaration]), (3252,
       [Item 5 sym_redirecting_factory_constructor_signature]), (3253,
       [Item 8 sym_mixin_declaration]), (3254, [Item 2 aux_sym_record_type_repeat2]), (3255,
       [Item 5 sym_enum_declaration]), (3256, [Item 2 sym_named_argument]), (3257,
       [Item 3 sym__pattern_field]), (3258, [Item 1 sym_record_field,
       Item 2 sym__record_literal_no_const, Item 3 sym_constant_pattern]), (3259,
       [Item 5 sym_extension_declaration]), (3260, [Item 4 sym__for_loop_parts]), (3261,
       [Item 1 aux_sym_static_final_declaration_list_repeat1]), (3262,
       [Item 2 sym_constant_pattern]), (3263, [Item 2 sym_type_bound]), (3264,
       [Item 3 sym__top_level_definition]), (3265, [Item 1 aux_sym_extension_body_repeat1]),
       (3266, [Item 3 sym_switch_expression_case]), (3267,
       [Item 2 aux_sym_type_parameters_repeat1]), (3268, [Item 2 aux_sym_list_pattern_repeat1]),
       (3269, [Item 2 aux_sym_switch_expression_repeat1]), (3270, [Item 3 sym_type_parameter]),
       (3271, [Item 2 sym__strict_formal_parameter_list]), (3272, [Item 3 sym_type_parameter]),
       (3273, [Item 1 sym_unconditional_assignable_selector]), (3274,
       [Item 7 sym_redirecting_factory_constructor_signature]), (3275,
       [Item 1 sym__type_dot_identifier]), (3276, [Item 3 sym_qualified]), (3277,
       [Item 2 sym__strict_formal_parameter_list]), (3278,
       [Item 2 sym_parenthesized_expression]), (3279,
       [Item 1 sym_unconditional_assignable_selector]), (3280,
       [Item 3 sym_switch_statement_case]), (3281, [Item 3 sym_template_substitution]), (3282,
       [Item 1 sym_static_final_declaration]), (3283, [Item 1 sym_constructor_param]), (3284,
       [Item 1 sym_symbol_literal]), (3285, [Item 5 sym_if_element]), (3286,
       [Item 5 sym_if_element, Item 5 sym_if_statement]), (3287,
       [Item 1 sym_pattern_assignment]), (3288, [Item 1 sym_super_formal_parameter]), (3289,
       [Item 9 sym_record_type]), (3290, [Item 4 sym__for_loop_parts]), (3291,
       [Item 5 sym_record_type]), (3292, [Item 2 sym_parameter_type_list]), (3293,
       [Item 4 sym_record_type]), (3294, [Item 3 sym_extension_declaration]), (3295,
       [Item 2 sym_arguments]), (3296, [Item 4 sym__mixin_class_modifiers]), (3297,
       [Item 8 sym_record_type]), (3298, [Item 4 sym_import_specification]), (3299,
       [Item 3 sym__optional_postional_formal_parameters]), (3300,
       [Item 2 sym__declared_identifier, Item 3 sym__declared_identifier]), (3301,
       [Item 4 sym_factory_constructor_signature])]"

definition lr_items_23 :: "(TSStateId \<times> lr_item list) list" where
  "lr_items_23 = [
     (3302, [Item 5 sym_declaration]), (3303, [Item 3 sym_constructor_param]), (3304,
       [Item 1 sym_unconditional_assignable_selector]), (3305,
       [Item 1 sym_conditional_assignable_selector]), (3306, [Item 7 sym_record_type]), (3307,
       [Item 5 sym_parameter_type_list]), (3308, [Item 3 sym_extension_declaration]), (3309,
       [Item 5 sym_record_type]), (3310, [Item 3 sym_super_formal_parameter]), (3311,
       [Item 4 sym__strict_formal_parameter_list]), (3312,
       [Item 1 sym_factory_constructor_signature,
       Item 2 sym_redirecting_factory_constructor_signature]), (3313,
       [Item 3 sym_conditional_expression]), (3314, [Item 2 sym_declaration]), (3315,
       [Item 2 sym_index_selector]), (3316, [Item 4 sym_parameter_type_list]), (3317,
       [Item 1 sym_switch_statement_default]), (3318, [Item 6 sym_record_type]), (3319,
       [Item 1 sym_field_initializer]), (3320, [Item 5 sym_parameter_type_list]), (3321,
       [Item 7 sym_record_type]), (3322, [Item 8 sym_record_type]), (3323,
       [Item 9 sym_record_type]), (3324,
       [Item 8 sym_redirecting_factory_constructor_signature]), (3325,
       [Item 6 sym_record_type]), (3326, [Item 1 sym__type_dot_identifier]), (3327,
       [Item 5 sym_assertion_arguments]), (3328, [Item 4 sym_parameter_type_list]), (3329,
       [Item 2 sym_index_selector]), (3330, [Item 3 sym_conditional_expression]), (3331,
       [Item 2 sym_comment]), (3332, [Item 1 sym_catch_parameters]), (3333,
       [Item 1 sym_factory_constructor_signature]), (3334, [Item 1 sym_record_field,
       Item 2 sym__record_literal_no_const]), (3335, [Item 1 sym_symbol_literal]), (3336,
       [Item 2 sym_parameter_type_list]), (3337, [Item 4 sym_record_type]), (3338,
       [Item 1 sym__type_dot_identifier]), (3339, [Item 2 sym_arguments]), (3340,
       [Item 2 sym_constructor_invocation, Item 2 sym_constructor_tearoff]), (3341,
       [Item 3 sym__record_literal_no_const]), (3342, [Item 1 sym__bitwise_operator]), (3343,
       [Item 1 sym_unconditional_assignable_selector]), (3344,
       [Item 1 sym_conditional_assignable_selector]), (3345, [Item 1 sym_binary_operator]),
       (3346, [Item 1 sym_bitwise_operator]), (3347, [Item 1 sym_if_statement]), (3348,
       [Item 5 sym_record_type]), (3349, [Item 3 sym_conditional_expression]), (3350,
       [Item 8 sym_record_type]), (3351, [Item 2 sym_index_selector]), (3352,
       [Item 4 sym_parameter_type_list]), (3353,
       [Item 5 sym_optional_positional_parameter_types]), (3354, [Item 6 sym_record_type]),
       (3355, [Item 5 sym_parameter_type_list]), (3356, [Item 7 sym_record_type]), (3357,
       [Item 8 sym_record_type]), (3358, [Item 9 sym_record_type]), (3359,
       [Item 5 sym_named_parameter_types]), (3360, [Item 3 sym_uri_test]), (3361,
       [Item 2 sym_scoped_identifier]), (3362, [Item 3 sym_template_substitution]), (3363,
       [Item 2 sym_arguments]), (3364, [Item 5 sym_record_type]), (3365,
       [Item 4 sym_catch_parameters]), (3366, [Item 1 sym_unconditional_assignable_selector]),
       (3367, [Item 1 sym_conditional_assignable_selector]), (3368,
       [Item 2 sym_switch_expression]), (3369, [Item 1 sym_getter_signature]), (3370,
       [Item 2 sym_index_selector]), (3371, [Item 3 sym_catch_parameters]), (3372,
       [Item 3 sym_catch_parameters]), (3373, [Item 1 sym_class_definition]), (3374,
       [Item 1 sym_conditional_assignable_selector]), (3375, [Item 2 sym_arguments]), (3376,
       [Item 1 sym_unconditional_assignable_selector]), (3377, [Item 9 sym_record_type]), (3378,
       [Item 1 sym_unconditional_assignable_selector]), (3379,
       [Item 1 sym_conditional_assignable_selector]), (3380, [Item 1 sym_assert_statement]),
       (3381, [Item 2 sym_index_selector]), (3382, [Item 2 sym_field_initializer]), (3383,
       [Item 1 sym_symbol_literal]), (3384, [Item 2 sym_arguments]), (3385,
       [Item 2 sym_arguments]), (3386, [Item 1 sym_unconditional_assignable_selector]), (3387,
       [Item 1 sym_conditional_assignable_selector]), (3388, [Item 2 sym_index_selector]),
       (3389, [Item 6 sym_redirecting_factory_constructor_signature]), (3390,
       [Item 4 sym_record_type]), (3391, [Item 1 sym_unconditional_assignable_selector]), (3392,
       [Item 1 sym_conditional_assignable_selector]), (3393, [Item 2 sym_index_selector]),
       (3394, [Item 2 sym_parameter_type_list]), (3395, [Item 1 sym_pattern_assignment]), (3396,
       [Item 1 sym_unconditional_assignable_selector]), (3397,
       [Item 1 sym_conditional_assignable_selector]), (3398, [Item 2 sym_index_selector]),
       (3399, [Item 5 sym_type_alias]), (3400, [Item 2 sym_parameter_type_list]), (3401,
       [Item 1 sym_unconditional_assignable_selector]), (3402,
       [Item 1 sym_conditional_assignable_selector]), (3403, [Item 2 sym_index_selector]),
       (3404, [Item 4 sym_record_type]), (3405, [Item 1 sym_unconditional_assignable_selector]),
       (3406, [Item 1 sym_conditional_assignable_selector]), (3407,
       [Item 2 sym_index_selector]), (3408, [Item 1 sym_switch_expression_case]), (3409,
       [Item 1 sym_pattern_assignment]), (3410, [Item 1 sym_pattern_assignment]), (3411,
       [Item 1 sym__declared_identifier]), (3412,
       [Item 1 aux_sym_factory_constructor_signature_repeat1]), (3413,
       [Item 2 sym_pattern_variable_declaration]), (3414, [Item 2 sym_arguments]), (3415,
       [Item 6 sym_type_alias]), (3416, [Item 1 sym_symbol_literal]), (3417,
       [Item 3 sym__named_formal_parameters]), (3418, [Item 5 sym_redirection]), (3419,
       [Item 1 sym__declared_identifier, Item 2 sym__declared_identifier]), (3420,
       [Item 2 sym_switch_block]), (3421, [Item 2 sym__final_var_or_type]), (3422,
       [Item 3 sym_field_initializer]), (3423, [Item 5 sym_catch_parameters]), (3424,
       [Item 1 sym_optional_formal_parameters]), (3425, [Item 1 sym__type_dot_identifier]),
       (3426, [Item 1 sym_conditional_assignable_selector]), (3427,
       [Item 3 sym_field_initializer]), (3428,
       [Item 7 sym_redirecting_factory_constructor_signature]), (3429,
       [Item 1 sym_nullable_selector]), (3430, [Bottom]), (3431,
       [Item 1 sym_conditional_assignable_selector]), (3432, [Item 3 sym_mixin_application]),
       (3433, [Item 2 sym_catch_clause]), (3434, [Item 3 sym__record_literal_no_const]), (3435,
       [Item 8 sym_redirecting_factory_constructor_signature]), (3436,
       [Item 3 sym__for_loop_parts]), (3437, [Item 9 sym_record_type]), (3438,
       [Item 7 sym_record_type]), (3439, [Item 2 sym__class_modifiers]), (3440,
       [Item 8 sym_record_type]), (3441, [Item 5 sym_record_type]), (3442,
       [Item 3 sym_template_substitution]), (3443, [Item 2 sym_getter_signature]), (3444,
       [Item 2 sym_scoped_identifier]), (3445, [Item 4 sym_named_parameter_types]), (3446,
       [Item 3 sym__for_loop_parts]), (3447, [Item 3 sym__record_literal_no_const]), (3448,
       [Item 1 sym_unconditional_assignable_selector, Item 2 sym_super_formal_parameter]),
       (3449, [Item 2 sym_index_selector]), (3450, [Item 2 sym_do_statement]), (3451,
       [Item 5 sym_if_statement])]"

definition lr_items_24 :: "(TSStateId \<times> lr_item list) list" where
  "lr_items_24 = [
     (3452, [Item 5 sym_parameter_type_list]), (3453, [Item 2 sym_extension_declaration]),
       (3454, [Item 2 sym_constructor_invocation, Item 2 sym_constructor_tearoff]), (3455,
       [Item 1 sym_record_field, Item 2 sym__record_literal_no_const]), (3456,
       [Item 5 sym_if_statement]), (3457, [Item 1 sym_unconditional_assignable_selector,
       Item 2 sym_super_formal_parameter]), (3458, [Item 1 sym_field_initializer]), (3459,
       [Item 2 sym_script_tag]), (3460, [Item 6 sym_record_type]), (3461,
       [Item 9 sym_redirecting_factory_constructor_signature]), (3462,
       [Item 2 sym_switch_statement_default]), (3463, [Item 3 sym_switch_block]), (3464,
       [Item 1 sym_label]), (3465, [Item 4 sym_parameter_type_list]), (3466,
       [Item 2 sym_index_selector]), (3467, [Item 2 sym_switch_statement_case]), (3468,
       [Item 3 sym_conditional_expression]), (3469, [Item 1 sym_variable_pattern]), (3470,
       [Item 2 sym_parameter_type_list]), (3471, [Item 3 sym_conditional_expression]), (3472,
       [Item 1 sym_optional_parameter_types]), (3473, [Item 2 sym_constructor_invocation,
       Item 2 sym_constructor_tearoff]), (3474, [Item 1 sym_sealed]), (3475,
       [Item 1 sym_record_field, Item 2 sym__record_literal_no_const]), (3476,
       [Item 2 sym_constructor_invocation, Item 2 sym_constructor_tearoff]), (3477,
       [Item 2 sym_index_selector]), (3478, [Item 1 sym_unconditional_assignable_selector,
       Item 2 sym_super_formal_parameter]), (3479, [Item 1 sym_interface]), (3480,
       [Item 3 sym__record_literal_no_const]), (3481, [Item 1 sym_if_element]), (3482,
       [Item 1 sym__deferred]), (3483, [Item 2 sym__dot_identifier]), (3484,
       [Item 4 sym_parameter_type_list]), (3485, [Item 1 sym__as]), (3486,
       [Item 3 sym_import_specification]), (3487, [Item 2 sym_parenthesized_expression]), (3488,
       [Item 3 sym__mixin_class_modifiers]), (3489, [Item 6 sym_record_type]), (3490,
       [Item 3 sym__class_modifiers]), (3491, [Item 1 sym_field_initializer]), (3492,
       [Item 3 sym_template_substitution]), (3493, [Item 3 sym__mixin_class_modifiers]), (3494,
       [Item 5 sym_record_type]), (3495, [Item 1 sym_typed_identifier]), (3496,
       [Item 3 sym_constant_pattern]), (3497, [Item 1 sym_if_statement]), (3498,
       [Item 1 sym_if_element, Item 1 sym_if_statement]), (3499,
       [Item 1 sym__type_dot_identifier]), (3500, [Item 1 sym_conditional_assignable_selector]),
       (3501, [Item 1 sym_unconditional_assignable_selector]), (3502, [Item 4 sym_type_alias]),
       (3503, [Item 2 sym_constructor_signature]), (3504, [Item 1 sym_script_tag]), (3505,
       [Item 3 sym_type_alias]), (3506, [Item 5 sym_parameter_type_list]), (3507,
       [Item 7 sym_record_type]), (3508, [Item 1 sym_part_directive]), (3509,
       [Item 1 sym_part_of_directive]), (3510, [Item 2 sym_for_loop_parts]), (3511,
       [Item 4 sym_extension_declaration]), (3512, [Item 8 sym_record_type]), (3513,
       [Item 1 sym_field_initializer]), (3514, [Item 2 sym__mixin_class_modifiers]), (3515,
       [Item 2 sym__mixin_class_modifiers]), (3516, [Item 4 sym_record_type]), (3517,
       [Item 9 sym_record_type]), (3518, [Item 2 sym_arguments]), (3519,
       [Item 4 sym_pattern_variable_declaration]), (3520, [Item 3 sym_declaration]), (3521,
       [Item 4 sym_record_type]), (3522, [Item 2 sym_parameter_type_list]), (3523,
       [Item 1 sym_factory_constructor_signature,
       Item 1 sym_redirecting_factory_constructor_signature]), (3524,
       [Item 2 sym_field_initializer]), (3525, [Item 2 sym__class_modifiers]), (3526,
       [Item 2 sym_arguments]), (3527, [Item 1 sym__dot_identifier]), (3528,
       [Item 1 sym_declaration]), (3529, [Item 3 sym__declared_identifier]), (3530,
       [Item 1 sym__class_modifiers]), (3531, [Item 1 sym__factory]), (3532,
       [Item 2 sym_super_formal_parameter]), (3533, [Item 1 sym_pattern_assignment]), (3534,
       [Item 2 sym_constructor_param]), (3535, [Item 1 sym__var_or_type,
       Item 2 sym__function_formal_parameter]), (3536, [Item 2 sym__declared_identifier]),
       (3537, [Item 1 sym_enum_constant]), (3538, [Item 2 sym_super_formal_parameter]), (3539,
       [Item 1 sym__class_modifiers]), (3540,
       [Item 4 sym__optional_postional_formal_parameters]), (3541,
       [Item 1 sym_enum_declaration]), (3542, [Item 3 sym_factory_constructor_signature]),
       (3543, [Item 2 sym_enum_declaration]), (3544, [Item 3 sym_conditional_expression]),
       (3545, [Item 1 sym_documentation_comment]), (3546, [Item 4 sym_declaration]), (3547,
       [Item 1 sym__final_var_or_type]), (3548, [Item 3 sym_redirection]), (3549,
       [Item 1 sym_symbol_literal]), (3550, [Item 1 sym_comment]), (3551,
       [Item 2 sym_constructor_param]), (3552, [Item 1 sym_record_field,
       Item 2 sym__record_literal_no_const]), (3553, [Item 1 sym_comment]), (3554,
       [Item 2 sym_switch_expression]), (3555, [Item 4 sym__named_formal_parameters]), (3556,
       [Item 5 sym__optional_postional_formal_parameters]), (3557,
       [Item 1 sym__type_dot_identifier]), (3558, [Item 1 sym__map_pattern_entry]), (3559,
       [Item 5 sym__named_formal_parameters]), (3560, [Item 2 sym_class_definition]), (3561,
       [Item 2 sym_switch_expression]), (3562, [Item 6 sym_record_type]), (3563,
       [Item 4 sym_parameter_type_list]), (3564,
       [Item 3 sym_optional_positional_parameter_types]), (3565,
       [Item 2 sym_switch_expression]), (3566, [Item 3 sym_named_parameter_types]), (3567,
       [Item 1 aux_sym_inferred_parameters_repeat1]), (3568, [Item 7 sym_record_type]), (3569,
       [Item 5 sym_parameter_type_list]), (3570,
       [Item 4 sym_optional_positional_parameter_types]), (3571,
       [Item 2 sym_configuration_uri_condition]), (3572, [Item 1 sym_documentation_comment]),
       (3573, [Item 3 sym_comment]), (3574, [Item 1 sym_comment]), (3575,
       [Item 2 sym_documentation_comment]), (3576, [Item 2 sym_comment])]"

definition lr_items_table :: "(TSStateId \<times> lr_item list) list" where
  "lr_items_table =
     lr_items_1 @ lr_items_2 @ lr_items_3 @ lr_items_4 @ lr_items_5 @ lr_items_6 @
     lr_items_7 @ lr_items_8 @ lr_items_9 @ lr_items_10 @ lr_items_11 @ lr_items_12 @
     lr_items_13 @ lr_items_14 @ lr_items_15 @ lr_items_16 @ lr_items_17 @ lr_items_18 @
     lr_items_19 @ lr_items_20 @ lr_items_21 @ lr_items_22 @ lr_items_23 @ lr_items_24"

definition lr_items :: "TSStateId \<rightharpoonup> lr_item list" where
  "lr_items = map_of lr_items_table"

lemma lr_items_keys:
  "map fst lr_items_1 = [2..<152]"
  "map fst lr_items_2 = [152..<302]"
  "map fst lr_items_3 = [302..<452]"
  "map fst lr_items_4 = [452..<602]"
  "map fst lr_items_5 = [602..<752]"
  "map fst lr_items_6 = [752..<902]"
  "map fst lr_items_7 = [902..<1052]"
  "map fst lr_items_8 = [1052..<1202]"
  "map fst lr_items_9 = [1202..<1352]"
  "map fst lr_items_10 = [1352..<1502]"
  "map fst lr_items_11 = [1502..<1652]"
  "map fst lr_items_12 = [1652..<1802]"
  "map fst lr_items_13 = [1802..<1952]"
  "map fst lr_items_14 = [1952..<2102]"
  "map fst lr_items_15 = [2102..<2252]"
  "map fst lr_items_16 = [2252..<2402]"
  "map fst lr_items_17 = [2402..<2552]"
  "map fst lr_items_18 = [2552..<2702]"
  "map fst lr_items_19 = [2702..<2852]"
  "map fst lr_items_20 = [2852..<3002]"
  "map fst lr_items_21 = [3002..<3152]"
  "map fst lr_items_22 = [3152..<3302]"
  "map fst lr_items_23 = [3302..<3452]"
  "map fst lr_items_24 = [3452..<3577]"
  by (simp_all add: lr_items_1_def lr_items_2_def lr_items_3_def lr_items_4_def lr_items_5_def
    lr_items_6_def lr_items_7_def lr_items_8_def lr_items_9_def lr_items_10_def
    lr_items_11_def lr_items_12_def lr_items_13_def lr_items_14_def lr_items_15_def
    lr_items_16_def lr_items_17_def lr_items_18_def lr_items_19_def lr_items_20_def
    lr_items_21_def lr_items_22_def lr_items_23_def lr_items_24_def)

lemma lr_items_keys_all: "map fst lr_items_table = [2..<STATE_COUNT]"
  by (simp add: lr_items_table_def lr_items_keys upt_join del: upt_rec_numeral)

lemma lr_items_dom: "lr_items s = Some its \<Longrightarrow> 2 \<le> s \<and> s < STATE_COUNT"
  using map_of_other [OF lr_items_keys_all, of s] by (fastforce simp: lr_items_def not_less)

lemma lr_items_eqs_blocks:
  "list_all (\<lambda>(k, x). lr_items k = Some x) lr_items_1"
  "list_all (\<lambda>(k, x). lr_items k = Some x) lr_items_2"
  "list_all (\<lambda>(k, x). lr_items k = Some x) lr_items_3"
  "list_all (\<lambda>(k, x). lr_items k = Some x) lr_items_4"
  "list_all (\<lambda>(k, x). lr_items k = Some x) lr_items_5"
  "list_all (\<lambda>(k, x). lr_items k = Some x) lr_items_6"
  "list_all (\<lambda>(k, x). lr_items k = Some x) lr_items_7"
  "list_all (\<lambda>(k, x). lr_items k = Some x) lr_items_8"
  "list_all (\<lambda>(k, x). lr_items k = Some x) lr_items_9"
  "list_all (\<lambda>(k, x). lr_items k = Some x) lr_items_10"
  "list_all (\<lambda>(k, x). lr_items k = Some x) lr_items_11"
  "list_all (\<lambda>(k, x). lr_items k = Some x) lr_items_12"
  "list_all (\<lambda>(k, x). lr_items k = Some x) lr_items_13"
  "list_all (\<lambda>(k, x). lr_items k = Some x) lr_items_14"
  "list_all (\<lambda>(k, x). lr_items k = Some x) lr_items_15"
  "list_all (\<lambda>(k, x). lr_items k = Some x) lr_items_16"
  "list_all (\<lambda>(k, x). lr_items k = Some x) lr_items_17"
  "list_all (\<lambda>(k, x). lr_items k = Some x) lr_items_18"
  "list_all (\<lambda>(k, x). lr_items k = Some x) lr_items_19"
  "list_all (\<lambda>(k, x). lr_items k = Some x) lr_items_20"
  "list_all (\<lambda>(k, x). lr_items k = Some x) lr_items_21"
  "list_all (\<lambda>(k, x). lr_items k = Some x) lr_items_22"
  "list_all (\<lambda>(k, x). lr_items k = Some x) lr_items_23"
  "list_all (\<lambda>(k, x). lr_items k = Some x) lr_items_24"
  using map_of_all [of lr_items_table, unfolded lr_items_keys_all, OF distinct_upt, folded lr_items_def]
  by (simp_all add: lr_items_table_def list_all_append)


text \<open>The item is one of the state.\<close>

definition has_item :: "TSStateId \<Rightarrow> lr_item \<Rightarrow> bool" where
  "has_item s it \<longleftrightarrow> (case lr_items s of None \<Rightarrow> False | Some its \<Rightarrow> it \<in> set its)"

text \<open>
  \<open>A\<close> says which symbols the state has entries for: what a rule for \<open>X\<close> needs when \<open>n\<close> symbols of it
  are on the stack.
\<close>

definition needed :: "(TSSymbol \<Rightarrow> bool) \<Rightarrow> TSStateId \<Rightarrow> nat \<Rightarrow> TSSymbol \<Rightarrow> bool" where
  "needed A s n X \<longleftrightarrow> (if n = 0 then A X else has_item s (Item n X))"

text \<open>
  What going to the state \<open>t\<close> needs of the state \<open>s\<close>: there are items of \<open>t\<close>, each has a symbol that
  has just been read, and without this symbol it is an item of \<open>s\<close>. What an action needs.
\<close>

fun item_needs :: "(TSSymbol \<Rightarrow> bool) \<Rightarrow> TSStateId \<Rightarrow> lr_item \<Rightarrow> bool" where
  "item_needs A s (Item n X) \<longleftrightarrow> 0 < n \<and> needed A s (n - 1) X"
| "item_needs A s Bottom \<longleftrightarrow> s = 1"

definition state_needs :: "(TSSymbol \<Rightarrow> bool) \<Rightarrow> TSStateId \<Rightarrow> TSStateId \<Rightarrow> bool" where
  "state_needs A s t \<longleftrightarrow>
     (case lr_items t of None \<Rightarrow> False | Some its \<Rightarrow> list_all (item_needs A s) its)"

fun action_needs :: "(TSSymbol \<Rightarrow> bool) \<Rightarrow> TSStateId \<Rightarrow> TSParseAction \<Rightarrow> bool" where
  "action_needs A s (SHIFT t) \<longleftrightarrow> state_needs A s t"
| "action_needs A s (SHIFT_REPEAT t) \<longleftrightarrow> state_needs A s t"
| "action_needs A s SHIFT_EXTRA \<longleftrightarrow> True"
| "action_needs A s (REDUCE X n precedence p) \<longleftrightarrow> needed A s n X"
| "action_needs A s RECOVER \<longleftrightarrow> s = 0"
| "action_needs A s ACCEPT_INPUT \<longleftrightarrow> s = accept_state \<and> has_item s Bottom"

definition group_needs :: "(TSSymbol \<Rightarrow> bool) \<Rightarrow> TSStateId \<Rightarrow> nat \<Rightarrow> bool" where
  "group_needs A s v \<longleftrightarrow>
     (\<exists>count reusable actions. (v, count, reusable, actions) \<in> set ts_parse_action_groups \<and>
        list_all (action_needs A s) actions)"

text \<open>
  Comments are extras: they are not counted among the children of a reduction, and the entries for
  them lead back to the state itself.
\<close>

definition is_extra :: "TSSymbol \<Rightarrow> bool" where
  "is_extra y \<longleftrightarrow> y = sym_comment \<or> y = sym_documentation_comment"

text \<open>
  The check of an entry in a state with the mode \<open>m\<close>: a terminal must be one the lexers can deliver and
  have a group of actions; a non-terminal must have a state to go to.
\<close>

definition entry_ok :: "TSLexMode \<Rightarrow> (TSSymbol \<Rightarrow> bool) \<Rightarrow> TSStateId \<Rightarrow> TSSymbol \<Rightarrow> nat \<Rightarrow> bool" where
  "entry_ok m A s y v \<longleftrightarrow>
     (if y < TOKEN_COUNT then expects m y \<and> group_needs A s v
      else y < SYMBOL_COUNT \<and> (is_extra y \<and> v = s \<or> state_needs A s v))"

text \<open>A row of the large table.\<close>

definition given :: "(TSSymbol \<Rightarrow> bool) \<Rightarrow> TSSymbol \<times> nat \<Rightarrow> bool" where
  "given A e \<longleftrightarrow> (case e of (y, v) \<Rightarrow> is_nonterminal y \<longrightarrow> A y)"

definition all_given :: "(TSSymbol \<Rightarrow> bool) \<Rightarrow> table_row \<Rightarrow> bool" where
  "all_given A es \<longleftrightarrow> list_all (given A) es"

definition table_row_ok :: "TSStateId \<Rightarrow> table_row \<Rightarrow> bool" where
  "table_row_ok s es \<longleftrightarrow>
     (case ts_lex_modes s of
        None \<Rightarrow> False
      | Some m \<Rightarrow> \<forall>A. all_given A es \<longrightarrow> list_all (\<lambda>(y, v). entry_ok m A s y v) es)"

text \<open>The sections of a state in the small table.\<close>

definition section_ok :: "TSLexMode \<Rightarrow> (TSSymbol \<Rightarrow> bool) \<Rightarrow> TSStateId \<Rightarrow> small_section \<Rightarrow> bool" where
  "section_ok m A s sec \<longleftrightarrow>
     (case sec of (v, count, ys) \<Rightarrow> length ys = count \<and> list_all (\<lambda>y. entry_ok m A s y v) ys)"

definition sections_ok :: "TSStateId \<Rightarrow> small_section list \<Rightarrow> bool" where
  "sections_ok s secs \<longleftrightarrow>
     (case ts_lex_modes s of
        None \<Rightarrow> False
      | Some m \<Rightarrow> \<forall>A. list_all (\<lambda>(v, count, ys). list_all A ys) secs \<longrightarrow> list_all (section_ok m A s) secs)"

fun section_size :: "small_section \<Rightarrow> nat" where
  "section_size (v, count, ys) = 2 + count"

text \<open>
  \<open>small_run s n gs t k\<close>: the groups are those of the states from \<open>s\<close> up to \<open>t\<close> and lie one after the
  other from index \<open>n\<close> up to \<open>k\<close>, where the map says they are, and their entries pass the check.
\<close>

fun small_run :: "TSStateId \<Rightarrow> nat \<Rightarrow> small_group list \<Rightarrow> TSStateId \<Rightarrow> nat \<Rightarrow> bool" where
  "small_run s n [] t k \<longleftrightarrow> s = t \<and> n = k"
| "small_run s n ((off, count, secs) # gs) t k \<longleftrightarrow>
     off = n \<and> ts_small_parse_table_map (SMALL_STATE s) = Some n \<and> length secs = count \<and> sections_ok s secs \<and>
     small_run (Suc s) (Suc n + sum_list (map section_size secs)) gs t k"

lemma small_run_append:
  "small_run s n gs t k \<Longrightarrow> small_run t k hs u m \<Longrightarrow> small_run s n (gs @ hs) u m"
  by (induction s n gs t k rule: small_run.induct) auto

subsection \<open>Equations for the check\<close>

lemma items_block_has:
  assumes "list_all (\<lambda>(k, x). lr_items k = Some x) b"
  shows "list_all (\<lambda>(t, its). list_all (has_item t) its) b"
  using assms by (auto simp: list_all_iff has_item_def)

lemma items_block_needs:
  assumes "list_all (\<lambda>(k, x). lr_items k = Some x) b"
  shows "list_all (\<lambda>(t, its). state_needs A s t \<longleftrightarrow> list_all (item_needs A s) its) b"
  using assms by (auto simp: list_all_iff state_needs_def)

lemma needed_eqs:
  "needed A s 0 X \<longleftrightarrow> A X"
  "needed A s (Suc 0) X \<longleftrightarrow> has_item s (Item (Suc 0) X)"
  "needed A s (numeral k) X \<longleftrightarrow> has_item s (Item (numeral k) X)"
  by (simp_all add: needed_def)

lemma item_needs_eqs:
  "item_needs A s (Item (Suc 0) X) \<longleftrightarrow> A X"
  "item_needs A s (Item 2 X) \<longleftrightarrow> has_item s (Item (Suc 0) X)"
  "item_needs A s (Item 3 X) \<longleftrightarrow> has_item s (Item 2 X)"
  "item_needs A s (Item 4 X) \<longleftrightarrow> has_item s (Item 3 X)"
  "item_needs A s (Item 5 X) \<longleftrightarrow> has_item s (Item 4 X)"
  "item_needs A s (Item 6 X) \<longleftrightarrow> has_item s (Item 5 X)"
  "item_needs A s (Item 7 X) \<longleftrightarrow> has_item s (Item 6 X)"
  "item_needs A s (Item 8 X) \<longleftrightarrow> has_item s (Item 7 X)"
  "item_needs A s (Item 9 X) \<longleftrightarrow> has_item s (Item 8 X)"
  "item_needs A s (Item 10 X) \<longleftrightarrow> has_item s (Item 9 X)"
  "item_needs A s Bottom \<longleftrightarrow> s = Suc 0"
  by (simp_all add: needed_def)

lemmas has_item_eqs [simp] =
  items_block_has [OF lr_items_eqs_blocks(1), unfolded lr_items_1_def list_all_tens prod.case simp_thms One_nat_def]
  items_block_has [OF lr_items_eqs_blocks(2), unfolded lr_items_2_def list_all_tens prod.case simp_thms One_nat_def]
  items_block_has [OF lr_items_eqs_blocks(3), unfolded lr_items_3_def list_all_tens prod.case simp_thms One_nat_def]
  items_block_has [OF lr_items_eqs_blocks(4), unfolded lr_items_4_def list_all_tens prod.case simp_thms One_nat_def]
  items_block_has [OF lr_items_eqs_blocks(5), unfolded lr_items_5_def list_all_tens prod.case simp_thms One_nat_def]
  items_block_has [OF lr_items_eqs_blocks(6), unfolded lr_items_6_def list_all_tens prod.case simp_thms One_nat_def]
  items_block_has [OF lr_items_eqs_blocks(7), unfolded lr_items_7_def list_all_tens prod.case simp_thms One_nat_def]
  items_block_has [OF lr_items_eqs_blocks(8), unfolded lr_items_8_def list_all_tens prod.case simp_thms One_nat_def]
  items_block_has [OF lr_items_eqs_blocks(9), unfolded lr_items_9_def list_all_tens prod.case simp_thms One_nat_def]
  items_block_has [OF lr_items_eqs_blocks(10), unfolded lr_items_10_def list_all_tens prod.case simp_thms One_nat_def]
  items_block_has [OF lr_items_eqs_blocks(11), unfolded lr_items_11_def list_all_tens prod.case simp_thms One_nat_def]
  items_block_has [OF lr_items_eqs_blocks(12), unfolded lr_items_12_def list_all_tens prod.case simp_thms One_nat_def]
  items_block_has [OF lr_items_eqs_blocks(13), unfolded lr_items_13_def list_all_tens prod.case simp_thms One_nat_def]
  items_block_has [OF lr_items_eqs_blocks(14), unfolded lr_items_14_def list_all_tens prod.case simp_thms One_nat_def]
  items_block_has [OF lr_items_eqs_blocks(15), unfolded lr_items_15_def list_all_tens prod.case simp_thms One_nat_def]
  items_block_has [OF lr_items_eqs_blocks(16), unfolded lr_items_16_def list_all_tens prod.case simp_thms One_nat_def]
  items_block_has [OF lr_items_eqs_blocks(17), unfolded lr_items_17_def list_all_tens prod.case simp_thms One_nat_def]
  items_block_has [OF lr_items_eqs_blocks(18), unfolded lr_items_18_def list_all_tens prod.case simp_thms One_nat_def]
  items_block_has [OF lr_items_eqs_blocks(19), unfolded lr_items_19_def list_all_tens prod.case simp_thms One_nat_def]
  items_block_has [OF lr_items_eqs_blocks(20), unfolded lr_items_20_def list_all_tens prod.case simp_thms One_nat_def]
  items_block_has [OF lr_items_eqs_blocks(21), unfolded lr_items_21_def list_all_tens prod.case simp_thms One_nat_def]
  items_block_has [OF lr_items_eqs_blocks(22), unfolded lr_items_22_def list_all_tens prod.case simp_thms One_nat_def]
  items_block_has [OF lr_items_eqs_blocks(23), unfolded lr_items_23_def list_all_tens prod.case simp_thms One_nat_def]
  items_block_has [OF lr_items_eqs_blocks(24), unfolded lr_items_24_def list_all_tens prod.case simp_thms One_nat_def]

lemmas state_needs_eqs [simp] =
  items_block_needs [OF lr_items_eqs_blocks(1), unfolded lr_items_1_def list_all_tens prod.case simp_thms One_nat_def item_needs_eqs]
  items_block_needs [OF lr_items_eqs_blocks(2), unfolded lr_items_2_def list_all_tens prod.case simp_thms One_nat_def item_needs_eqs]
  items_block_needs [OF lr_items_eqs_blocks(3), unfolded lr_items_3_def list_all_tens prod.case simp_thms One_nat_def item_needs_eqs]
  items_block_needs [OF lr_items_eqs_blocks(4), unfolded lr_items_4_def list_all_tens prod.case simp_thms One_nat_def item_needs_eqs]
  items_block_needs [OF lr_items_eqs_blocks(5), unfolded lr_items_5_def list_all_tens prod.case simp_thms One_nat_def item_needs_eqs]
  items_block_needs [OF lr_items_eqs_blocks(6), unfolded lr_items_6_def list_all_tens prod.case simp_thms One_nat_def item_needs_eqs]
  items_block_needs [OF lr_items_eqs_blocks(7), unfolded lr_items_7_def list_all_tens prod.case simp_thms One_nat_def item_needs_eqs]
  items_block_needs [OF lr_items_eqs_blocks(8), unfolded lr_items_8_def list_all_tens prod.case simp_thms One_nat_def item_needs_eqs]
  items_block_needs [OF lr_items_eqs_blocks(9), unfolded lr_items_9_def list_all_tens prod.case simp_thms One_nat_def item_needs_eqs]
  items_block_needs [OF lr_items_eqs_blocks(10), unfolded lr_items_10_def list_all_tens prod.case simp_thms One_nat_def item_needs_eqs]
  items_block_needs [OF lr_items_eqs_blocks(11), unfolded lr_items_11_def list_all_tens prod.case simp_thms One_nat_def item_needs_eqs]
  items_block_needs [OF lr_items_eqs_blocks(12), unfolded lr_items_12_def list_all_tens prod.case simp_thms One_nat_def item_needs_eqs]
  items_block_needs [OF lr_items_eqs_blocks(13), unfolded lr_items_13_def list_all_tens prod.case simp_thms One_nat_def item_needs_eqs]
  items_block_needs [OF lr_items_eqs_blocks(14), unfolded lr_items_14_def list_all_tens prod.case simp_thms One_nat_def item_needs_eqs]
  items_block_needs [OF lr_items_eqs_blocks(15), unfolded lr_items_15_def list_all_tens prod.case simp_thms One_nat_def item_needs_eqs]
  items_block_needs [OF lr_items_eqs_blocks(16), unfolded lr_items_16_def list_all_tens prod.case simp_thms One_nat_def item_needs_eqs]
  items_block_needs [OF lr_items_eqs_blocks(17), unfolded lr_items_17_def list_all_tens prod.case simp_thms One_nat_def item_needs_eqs]
  items_block_needs [OF lr_items_eqs_blocks(18), unfolded lr_items_18_def list_all_tens prod.case simp_thms One_nat_def item_needs_eqs]
  items_block_needs [OF lr_items_eqs_blocks(19), unfolded lr_items_19_def list_all_tens prod.case simp_thms One_nat_def item_needs_eqs]
  items_block_needs [OF lr_items_eqs_blocks(20), unfolded lr_items_20_def list_all_tens prod.case simp_thms One_nat_def item_needs_eqs]
  items_block_needs [OF lr_items_eqs_blocks(21), unfolded lr_items_21_def list_all_tens prod.case simp_thms One_nat_def item_needs_eqs]
  items_block_needs [OF lr_items_eqs_blocks(22), unfolded lr_items_22_def list_all_tens prod.case simp_thms One_nat_def item_needs_eqs]
  items_block_needs [OF lr_items_eqs_blocks(23), unfolded lr_items_23_def list_all_tens prod.case simp_thms One_nat_def item_needs_eqs]
  items_block_needs [OF lr_items_eqs_blocks(24), unfolded lr_items_24_def list_all_tens prod.case simp_thms One_nat_def item_needs_eqs]

lemma groups_distinct: "distinct (map fst ts_parse_action_groups)"
proof -
  have "list_all (\<lambda>(i, xs). xs \<noteq> []) (map (\<lambda>g. (fst g, group_entries g)) ts_parse_action_groups)"
    by (auto simp: list_all_iff)
  from laid_out_distinct [OF groups_at_laid_out [OF groups_at_all] this] show ?thesis by (simp add: comp_def)
qed

lemma group_needs_eq:
  assumes "(v, count, reusable, actions) \<in> set ts_parse_action_groups"
  shows "group_needs A s v \<longleftrightarrow> list_all (action_needs A s) actions"
proof -
  have "actions' = actions" if "(v, count', reusable', actions') \<in> set ts_parse_action_groups"
    for count' reusable' actions'
    using eq_key_imp_eq_value [OF groups_distinct assms that] by simp
  with assms show ?thesis unfolding group_needs_def by blast
qed

lemma group_block_needs:
  assumes "set gs \<subseteq> set ts_parse_action_groups"
  shows "list_all (\<lambda>(i, count, reusable, actions). group_needs A s i \<longleftrightarrow> list_all (action_needs A s) actions) gs"
  using assms group_needs_eq by (auto simp: list_all_iff [of _ gs])

lemmas group_needs_eqs [simp] =
  group_block_needs [OF action_blocks(1), unfolded ts_parse_actions_1_def list_all_tens prod.case simp_thms One_nat_def
    action_needs.simps needed_eqs]
  group_block_needs [OF action_blocks(2), unfolded ts_parse_actions_2_def list_all_tens prod.case simp_thms One_nat_def
    action_needs.simps needed_eqs]
  group_block_needs [OF action_blocks(3), unfolded ts_parse_actions_3_def list_all_tens prod.case simp_thms One_nat_def
    action_needs.simps needed_eqs]
  group_block_needs [OF action_blocks(4), unfolded ts_parse_actions_4_def list_all_tens prod.case simp_thms One_nat_def
    action_needs.simps needed_eqs]
  group_block_needs [OF action_blocks(5), unfolded ts_parse_actions_5_def list_all_tens prod.case simp_thms One_nat_def
    action_needs.simps needed_eqs]
  group_block_needs [OF action_blocks(6), unfolded ts_parse_actions_6_def list_all_tens prod.case simp_thms One_nat_def
    action_needs.simps needed_eqs]
  group_block_needs [OF action_blocks(7), unfolded ts_parse_actions_7_def list_all_tens prod.case simp_thms One_nat_def
    action_needs.simps needed_eqs]
  group_block_needs [OF action_blocks(8), unfolded ts_parse_actions_8_def list_all_tens prod.case simp_thms One_nat_def
    action_needs.simps needed_eqs]
  group_block_needs [OF action_blocks(9), unfolded ts_parse_actions_9_def list_all_tens prod.case simp_thms One_nat_def
    action_needs.simps needed_eqs]
  group_block_needs [OF action_blocks(10), unfolded ts_parse_actions_10_def list_all_tens prod.case simp_thms One_nat_def
    action_needs.simps needed_eqs]
  group_block_needs [OF action_blocks(11), unfolded ts_parse_actions_11_def list_all_tens prod.case simp_thms One_nat_def
    action_needs.simps needed_eqs]
  group_block_needs [OF action_blocks(12), unfolded ts_parse_actions_12_def list_all_tens prod.case simp_thms One_nat_def
    action_needs.simps needed_eqs]
  group_block_needs [OF action_blocks(13), unfolded ts_parse_actions_13_def list_all_tens prod.case simp_thms One_nat_def
    action_needs.simps needed_eqs]
  group_block_needs [OF action_blocks(14), unfolded ts_parse_actions_14_def list_all_tens prod.case simp_thms One_nat_def
    action_needs.simps needed_eqs]
  group_block_needs [OF action_blocks(15), unfolded ts_parse_actions_15_def list_all_tens prod.case simp_thms One_nat_def
    action_needs.simps needed_eqs]
  group_block_needs [OF action_blocks(16), unfolded ts_parse_actions_16_def list_all_tens prod.case simp_thms One_nat_def
    action_needs.simps needed_eqs]
  group_block_needs [OF action_blocks(17), unfolded ts_parse_actions_17_def list_all_tens prod.case simp_thms One_nat_def
    action_needs.simps needed_eqs]
  group_block_needs [OF action_blocks(18), unfolded ts_parse_actions_18_def list_all_tens prod.case simp_thms One_nat_def
    action_needs.simps needed_eqs]
  group_block_needs [OF action_blocks(19), unfolded ts_parse_actions_19_def list_all_tens prod.case simp_thms One_nat_def
    action_needs.simps needed_eqs]
  group_block_needs [OF action_blocks(20), unfolded ts_parse_actions_20_def list_all_tens prod.case simp_thms One_nat_def
    action_needs.simps needed_eqs]
  group_block_needs [OF action_blocks(21), unfolded ts_parse_actions_21_def list_all_tens prod.case simp_thms One_nat_def
    action_needs.simps needed_eqs]
  group_block_needs [OF action_blocks(22), unfolded ts_parse_actions_22_def list_all_tens prod.case simp_thms One_nat_def
    action_needs.simps needed_eqs]

text \<open>The symbols, as far as the check distinguishes them.\<close>

definition counted :: "TSSymbol \<Rightarrow> bool" where
  "counted y \<longleftrightarrow> is_nonterminal y \<and> \<not> is_extra y"

lemma counted_symbols:
  "list_all counted [163..<263]" "list_all counted [263..<363]" "list_all counted [363..<461]"
  "list_all counted [463..<524]"
  by (auto simp: list_all_iff counted_def is_nonterminal_def is_extra_def simp del: upt_rec_numeral)

lemmas counted_eqs [simp] =
  counted_symbols(1) [simplified] counted_symbols(2) [simplified] counted_symbols(3) [simplified]
  counted_symbols(4) [simplified]

lemma given_terminal: "is_terminal y \<Longrightarrow> given A (y, v)"
  by (simp add: given_def is_nonterminal_def is_terminal_def)

lemma given_nonterminal: "is_nonterminal y \<Longrightarrow> given A (y, v) \<longleftrightarrow> A y"
  by (simp add: given_def)

lemmas all_given_eqs = list_all_tens [of "given A" for A, folded all_given_def]

lemma entry_ok_terminal: "is_terminal y \<Longrightarrow> entry_ok m A s y v \<longleftrightarrow> expects m y \<and> group_needs A s v"
  by (simp add: entry_ok_def is_terminal_def)

lemma entry_ok_nonterminal: "counted y \<Longrightarrow> entry_ok m A s y v \<longleftrightarrow> state_needs A s v"
  by (simp add: entry_ok_def counted_def is_nonterminal_def)

lemma entry_ok_extra: "entry_ok m A s sym_comment s" "entry_ok m A s sym_documentation_comment s"
  by (simp_all add: entry_ok_def is_extra_def)

lemma table_row_ok_mode:
  "ts_lex_modes s = Some m \<Longrightarrow>
     table_row_ok s es \<longleftrightarrow> (\<forall>A. all_given A es \<longrightarrow> list_all (\<lambda>(y, v). entry_ok m A s y v) es)"
  by (simp add: table_row_ok_def)

text \<open>A section has terminals only, or non-terminals only, the comments before the others.\<close>

lemma section_terminals:
  "is_terminal y \<Longrightarrow> group_needs A s v \<Longrightarrow> Suc (length ys) = count \<Longrightarrow> list_all (expects m) (y # ys) \<Longrightarrow>
     section_ok m A s (v, count, y # ys)"
  by (auto simp: section_ok_def entry_ok_def list_all_iff dest: expects_terminal)

lemma section_nonterminals:
  "counted y \<Longrightarrow> state_needs A s v \<Longrightarrow> Suc (length ys) = count \<Longrightarrow> list_all is_nonterminal ys \<Longrightarrow>
     section_ok m A s (v, count, y # ys)"
  by (auto simp: section_ok_def entry_ok_def counted_def is_nonterminal_def list_all_iff)

lemma section_extras:
  "section_ok m A s (s, count, sym_comment # sym_documentation_comment # ys) \<longleftrightarrow>
     2 \<le> count \<and> section_ok m A s (s, count - 2, ys)"
  "section_ok m A s (v, 0, [])"
  by (auto simp: section_ok_def entry_ok_def is_extra_def)

lemma sections_ok_mode:
  "ts_lex_modes s = Some m \<Longrightarrow> sections_ok s secs \<longleftrightarrow>
     (\<forall>A. list_all (\<lambda>(v, count, ys). list_all A ys) secs \<longrightarrow> list_all (section_ok m A s) secs)"
  by (simp add: sections_ok_def)

lemmas row_simps = table_row_ok_mode all_given_eqs given_terminal given_nonterminal
  entry_ok_terminal entry_ok_nonterminal entry_ok_extra

lemmas small_simps = sections_ok_mode section_terminals section_nonterminals section_extras

end
