(* ===== verification/Dart_Rows_1.thy ===== *)
theory Dart_Rows_1
  imports Dart_Items
begin

text \<open>
  The rows 0 to 39 of \<^verbatim>\<open>ts_parse_table\<close>, each with the check of its entries.
\<close>

definition ts_parse_table_0 :: table_row where
  "ts_parse_table_0 = [
     (sym_comment, STATE 0), (sym_documentation_comment, STATE 0),
     (ts_builtin_sym_end, ACTIONS 1), (sym_identifier, ACTIONS 1), (anon_sym_POUND, ACTIONS 1),
     (sym_decimal_integer_literal, ACTIONS 1), (sym_hex_integer_literal, ACTIONS 1),
     (sym_decimal_floating_point_literal, ACTIONS 1), (anon_sym_true, ACTIONS 1),
     (anon_sym_false, ACTIONS 1), (anon_sym_DQUOTE, ACTIONS 1), (anon_sym_SQUOTE, ACTIONS 1),
     (anon_sym_DQUOTE_DQUOTE_DQUOTE, ACTIONS 1), (anon_sym_SQUOTE_SQUOTE_SQUOTE, ACTIONS 1),
     (anon_sym_r_DQUOTE, ACTIONS 1), (anon_sym_DOLLAR, ACTIONS 1),
     (anon_sym_r_SQUOTE, ACTIONS 1), (anon_sym_r_DQUOTE_DQUOTE_DQUOTE, ACTIONS 1),
     (anon_sym_r_SQUOTE_SQUOTE_SQUOTE, ACTIONS 1), (anon_sym_LBRACE, ACTIONS 1),
     (anon_sym_RBRACE, ACTIONS 1), (sym__unused_escape_sequence, ACTIONS 1),
     (anon_sym_LBRACK, ACTIONS 1), (anon_sym_COMMA, ACTIONS 1), (anon_sym_RBRACK, ACTIONS 1),
     (anon_sym_COLON, ACTIONS 1), (anon_sym_null, ACTIONS 1), (anon_sym_LPAREN, ACTIONS 1),
     (anon_sym_RPAREN, ACTIONS 1), (anon_sym_throw, ACTIONS 1), (anon_sym_EQ, ACTIONS 1),
     (anon_sym_PLUS_EQ, ACTIONS 1), (anon_sym_DASH_EQ, ACTIONS 1), (anon_sym_STAR_EQ, ACTIONS 1),
     (anon_sym_SLASH_EQ, ACTIONS 1), (anon_sym_PERCENT_EQ, ACTIONS 1),
     (anon_sym_TILDE_SLASH_EQ, ACTIONS 1), (anon_sym_LT_LT_EQ, ACTIONS 1),
     (anon_sym_GT_GT_EQ, ACTIONS 1), (anon_sym_GT_GT_GT_EQ, ACTIONS 1),
     (anon_sym_AMP_EQ, ACTIONS 1), (anon_sym_CARET_EQ, ACTIONS 1), (anon_sym_PIPE_EQ, ACTIONS 1),
     (anon_sym_QMARK_QMARK_EQ, ACTIONS 1), (anon_sym_QMARK_QMARK, ACTIONS 1),
     (anon_sym_QMARK, ACTIONS 1), (sym_equality_operator, ACTIONS 1), (anon_sym_LT, ACTIONS 1),
     (anon_sym_GT, ACTIONS 1), (anon_sym_LT_EQ, ACTIONS 1), (anon_sym_GT_EQ, ACTIONS 1),
     (anon_sym_PIPE, ACTIONS 1), (anon_sym_CARET, ACTIONS 1), (anon_sym_AMP, ACTIONS 1),
     (anon_sym_LT_LT, ACTIONS 1), (anon_sym_GT_GT, ACTIONS 1), (anon_sym_GT_GT_GT, ACTIONS 1),
     (sym__additive_operator, ACTIONS 1), (anon_sym_STAR, ACTIONS 1),
     (anon_sym_SLASH, ACTIONS 1), (anon_sym_PERCENT, ACTIONS 1),
     (anon_sym_TILDE_SLASH, ACTIONS 1), (sym_increment_operator, ACTIONS 1),
     (anon_sym_DOT_DOT_DOT, ACTIONS 1), (sym_minus_operator, ACTIONS 1),
     (anon_sym_BANG, ACTIONS 1), (anon_sym_TILDE, ACTIONS 1), (anon_sym_await, ACTIONS 1),
     (anon_sym_is, ACTIONS 1), (anon_sym_as, ACTIONS 1), (anon_sym_DOT, ACTIONS 1),
     (anon_sym_QMARK_DOT, ACTIONS 1), (anon_sym_DOT_DOT, ACTIONS 1),
     (anon_sym_QMARK_DOT_DOT, ACTIONS 1), (anon_sym_extends, ACTIONS 1),
     (anon_sym_SEMI, ACTIONS 1), (anon_sym_switch, ACTIONS 1), (anon_sym_EQ_GT, ACTIONS 1),
     (anon_sym_when, ACTIONS 1), (anon_sym_default, ACTIONS 1), (anon_sym_do, ACTIONS 1),
     (anon_sym_while, ACTIONS 1), (anon_sym_continue, ACTIONS 1), (anon_sym_yield, ACTIONS 1),
     (anon_sym_return, ACTIONS 1), (anon_sym_on, ACTIONS 1), (anon_sym_try, ACTIONS 1),
     (anon_sym_catch, ACTIONS 1), (anon_sym_finally, ACTIONS 1), (anon_sym_if, ACTIONS 1),
     (anon_sym_case, ACTIONS 1), (anon_sym_else, ACTIONS 1), (anon_sym_for, ACTIONS 1),
     (anon_sym_in, ACTIONS 1), (anon_sym_AT, ACTIONS 1), (anon_sym_part, ACTIONS 1),
     (anon_sym_EQ_EQ, ACTIONS 1), (anon_sym_show, ACTIONS 1), (anon_sym_hide, ACTIONS 1),
     (anon_sym_enum, ACTIONS 1), (anon_sym_final, ACTIONS 1), (anon_sym_inline, ACTIONS 1),
     (anon_sym_class, ACTIONS 1), (anon_sym_extension, ACTIONS 1), (anon_sym_with, ACTIONS 1),
     (sym_floating_point_type, ACTIONS 1), (anon_sym_bool, ACTIONS 1),
     (sym_void_type, ACTIONS 1), (anon_sym_var, ACTIONS 1), (anon_sym_async, ACTIONS 1),
     (anon_sym_async_STAR, ACTIONS 1), (anon_sym_sync_STAR, ACTIONS 1),
     (anon_sym_POUND_BANG, ACTIONS 1), (anon_sym_library, ACTIONS 1),
     (sym_break_builtin, ACTIONS 1), (sym_assert_builtin, ACTIONS 1),
     (sym_rethrow_builtin, ACTIONS 1), (sym_part_of_builtin, ACTIONS 1),
     (anon_sym_covariant, ACTIONS 1), (anon_sym_deferred, ACTIONS 1),
     (anon_sym_dynamic, ACTIONS 1), (anon_sym_export, ACTIONS 1), (anon_sym_factory, ACTIONS 1),
     (anon_sym_Function, ACTIONS 1), (anon_sym_get, ACTIONS 1), (anon_sym_native, ACTIONS 1),
     (anon_sym_implements, ACTIONS 1), (anon_sym_import, ACTIONS 1),
     (anon_sym_interface, ACTIONS 1), (anon_sym_base, ACTIONS 1), (anon_sym_abstract, ACTIONS 1),
     (anon_sym_sealed, ACTIONS 1), (anon_sym_operator, ACTIONS 1), (anon_sym_mixin, ACTIONS 1),
     (anon_sym_required, ACTIONS 1), (anon_sym_set, ACTIONS 1), (anon_sym_static, ACTIONS 1),
     (anon_sym_typedef, ACTIONS 1), (anon_sym_new, ACTIONS 1), (anon_sym_AMP_AMP, ACTIONS 1),
     (anon_sym_PIPE_PIPE, ACTIONS 1), (sym_const_builtin, ACTIONS 1), (anon_sym_late, ACTIONS 1),
     (anon_sym_external, ACTIONS 1), (anon_sym_this, ACTIONS 1), (anon_sym_super, ACTIONS 1),
     (anon_sym_SLASH_SLASH, ACTIONS 3), (anon_sym_SLASH_STAR, ACTIONS 5),
     (anon_sym_SLASH_SLASH_SLASH, ACTIONS 7), (sym__template_chars_double, ACTIONS 1),
     (sym__template_chars_single, ACTIONS 1), (sym__template_chars_double_single, ACTIONS 1),
     (sym__template_chars_single_single, ACTIONS 1), (sym__template_chars_raw_slash, ACTIONS 1),
     (sym__block_comment, ACTIONS 9), (sym__documentation_block_comment, ACTIONS 11)]"

lemma row_ok_0: "table_row_ok 0 ts_parse_table_0"
  by (simp add: row_simps ts_parse_table_0_def)

definition ts_parse_table_1 :: table_row where
  "ts_parse_table_1 = [
     (sym_program, STATE 3430), (sym__top_level_definition, STATE 1774),
     (sym_annotation, STATE 1571), (sym_import_or_export, STATE 1572),
     (sym_library_import, STATE 1577), (sym_library_export, STATE 1577),
     (sym_import_specification, STATE 1581), (sym_part_directive, STATE 1671),
     (sym_part_of_directive, STATE 1725), (sym_enum_declaration, STATE 1769),
     (sym_type_alias, STATE 1769), (sym__class_modifiers, STATE 3195),
     (sym__mixin_class_modifiers, STATE 3373), (sym_class_definition, STATE 1769),
     (sym_extension_declaration, STATE 1769), (sym__metadata, STATE 550),
     (sym_mixin_declaration, STATE 1769), (sym_getter_signature, STATE 2207),
     (sym_setter_signature, STATE 2207), (sym__type, STATE 2433),
     (sym__type_not_function, STATE 1796), (sym__type_not_void_not_function, STATE 1896),
     (sym_function_type, STATE 1848), (aux_sym__function_type_tails, STATE 1605),
     (sym__function_type_tail, STATE 1704), (sym_record_type, STATE 1805),
     (sym__type_name, STATE 1530), (sym_inferred_type, STATE 2737),
     (sym_function_signature, STATE 2207), (sym_script_tag, STATE 435),
     (sym_library_name, STATE 442), (sym__export, STATE 1869),
     (sym__function_builtin_identifier, STATE 1463), (sym__get, STATE 2411),
     (sym__import, STATE 1817), (sym_interface, STATE 3539), (sym_base, STATE 2767),
     (sym_abstract, STATE 2228), (sym_sealed, STATE 3539), (sym_mixin, STATE 3250),
     (sym__set, STATE 2377), (sym__typedef, STATE 2082), (sym_final_builtin, STATE 1989),
     (sym__late_builtin, STATE 1957), (sym__external_builtin, STATE 1818),
     (sym_comment, STATE 1), (sym_documentation_comment, STATE 1),
     (aux_sym_program_repeat1, STATE 438), (aux_sym_program_repeat2, STATE 454),
     (aux_sym_program_repeat3, STATE 469), (aux_sym_program_repeat4, STATE 475),
     (aux_sym__metadata_repeat1, STATE 1454), (ts_builtin_sym_end, ACTIONS 13),
     (sym_identifier, ACTIONS 15), (anon_sym_LPAREN, ACTIONS 17), (anon_sym_AT, ACTIONS 19),
     (anon_sym_part, ACTIONS 21), (anon_sym_enum, ACTIONS 23), (anon_sym_final, ACTIONS 25),
     (anon_sym_inline, ACTIONS 27), (anon_sym_class, ACTIONS 29),
     (anon_sym_extension, ACTIONS 31), (sym_void_type, ACTIONS 33), (anon_sym_var, ACTIONS 35),
     (anon_sym_POUND_BANG, ACTIONS 37), (anon_sym_library, ACTIONS 39),
     (sym_part_of_builtin, ACTIONS 41), (anon_sym_export, ACTIONS 43),
     (anon_sym_Function, ACTIONS 45), (anon_sym_get, ACTIONS 47), (anon_sym_import, ACTIONS 49),
     (anon_sym_interface, ACTIONS 51), (anon_sym_base, ACTIONS 53),
     (anon_sym_abstract, ACTIONS 55), (anon_sym_sealed, ACTIONS 57),
     (anon_sym_mixin, ACTIONS 59), (anon_sym_set, ACTIONS 61), (anon_sym_typedef, ACTIONS 63),
     (sym_const_builtin, ACTIONS 65), (anon_sym_late, ACTIONS 67),
     (anon_sym_external, ACTIONS 69), (anon_sym_SLASH_SLASH, ACTIONS 3),
     (anon_sym_SLASH_STAR, ACTIONS 5), (anon_sym_SLASH_SLASH_SLASH, ACTIONS 7),
     (sym__block_comment, ACTIONS 9), (sym__documentation_block_comment, ACTIONS 11)]"

lemma row_ok_1: "table_row_ok (Suc 0) ts_parse_table_1"
  by (simp add: row_simps ts_parse_table_1_def)

definition ts_parse_table_2 :: table_row where
  "ts_parse_table_2 = [
     (sym__bool_literal, STATE 989), (sym__numeric_literal, STATE 989),
     (sym__literal, STATE 962), (sym_symbol_literal, STATE 989), (sym_true, STATE 900),
     (sym_false, STATE 900), (sym_string_literal, STATE 989),
     (sym__string_literal_double_quotes, STATE 627),
     (sym__string_literal_single_quotes, STATE 627),
     (sym__string_literal_double_quotes_multiple, STATE 627),
     (sym__string_literal_single_quotes_multiple, STATE 627),
     (sym__raw_string_literal_double_quotes, STATE 627),
     (sym__raw_string_literal_single_quotes, STATE 627),
     (sym__raw_string_literal_double_quotes_multiple, STATE 627),
     (sym__raw_string_literal_single_quotes_multiple, STATE 627), (sym_list_literal, STATE 989),
     (sym_set_or_map_literal, STATE 989), (sym_pair, STATE 2660), (sym__element, STATE 2817),
     (sym_null_literal, STATE 989), (sym_record_literal, STATE 989),
     (sym__record_literal_no_const, STATE 924), (sym__expression, STATE 2565),
     (sym__real_expression, STATE 660), (sym_throw_expression, STATE 908),
     (sym_rethrow_expression, STATE 908), (sym_assignment_expression, STATE 908),
     (sym_assignable_expression, STATE 1940), (sym_lambda_expression, STATE 534),
     (sym_function_expression, STATE 962), (sym_if_null_expression, STATE 1477),
     (sym_conditional_expression, STATE 1477), (sym_logical_or_expression, STATE 1477),
     (sym_logical_and_expression, STATE 1477), (sym_equality_expression, STATE 1477),
     (sym_type_cast_expression, STATE 1477), (sym_type_test_expression, STATE 1477),
     (sym_relational_expression, STATE 1477), (sym_bitwise_or_expression, STATE 1477),
     (sym_bitwise_xor_expression, STATE 1477), (sym_bitwise_and_expression, STATE 1477),
     (sym_shift_expression, STATE 1477), (sym_additive_expression, STATE 1477),
     (sym_multiplicative_expression, STATE 1477), (sym__unary_expression, STATE 1121),
     (sym_unary_expression, STATE 1303), (sym__postfix_expression, STATE 1303),
     (sym_postfix_expression, STATE 1301), (sym_spread_element, STATE 2660),
     (sym_prefix_operator, STATE 431), (sym_negation_operator, STATE 1450),
     (sym__exclamation_operator, STATE 1451), (sym_tilde_operator, STATE 1385),
     (sym_await_expression, STATE 1302), (sym_new_expression, STATE 962),
     (sym_const_object_expression, STATE 962), (sym__primary, STATE 668),
     (sym_parenthesized_expression, STATE 962), (sym_constructor_invocation, STATE 643),
     (sym_constructor_tearoff, STATE 962), (sym_type_arguments, STATE 3200),
     (sym__statement, STATE 556), (sym_local_function_declaration, STATE 533),
     (sym_block, STATE 527), (sym_expression_statement, STATE 527),
     (sym_assert_statement, STATE 527), (sym_assertion, STATE 3380),
     (sym_switch_statement, STATE 527), (sym_switch_expression, STATE 962),
     (sym__parenthesized_pattern, STATE 3182), (sym_list_pattern, STATE 3182),
     (sym_map_pattern, STATE 3182), (sym__map_pattern_entry, STATE 2798),
     (sym_record_pattern, STATE 3182), (sym_object_pattern, STATE 3182),
     (sym_pattern_variable_declaration, STATE 3176), (sym__outer_pattern, STATE 3410),
     (sym_pattern_assignment, STATE 908), (sym_do_statement, STATE 527),
     (sym_break_statement, STATE 527), (sym_continue_statement, STATE 527),
     (sym_yield_statement, STATE 527), (sym_yield_each_statement, STATE 527),
     (sym_return_statement, STATE 527), (sym_try_statement, STATE 527),
     (sym__try_head, STATE 464), (sym_if_element, STATE 2660), (sym_if_statement, STATE 527),
     (sym_while_statement, STATE 527), (sym_for_statement, STATE 527),
     (sym_for_element, STATE 2660), (sym_annotation, STATE 1361), (sym__metadata, STATE 1059),
     (sym_type_parameters, STATE 2932), (sym_initialized_variable_definition, STATE 3176),
     (sym__declared_identifier, STATE 2667), (sym__final_const_var_or_type, STATE 3411),
     (sym__type, STATE 2530), (sym__type_not_function, STATE 1796),
     (sym__type_not_void_not_function, STATE 1896), (sym_function_type, STATE 1848),
     (aux_sym__function_type_tails, STATE 1605), (sym__function_type_tail, STATE 1704),
     (sym_record_type, STATE 1805), (sym__type_name, STATE 2004), (sym__var_or_type, STATE 2755),
     (sym_inferred_type, STATE 1771), (sym_function_signature, STATE 2368),
     (sym__formal_parameter_part, STATE 2339), (sym_formal_parameter_list, STATE 2020),
     (sym__strict_formal_parameter_list, STATE 2016),
     (sym_local_variable_declaration, STATE 542), (sym__covariant, STATE 1795),
     (sym__function_builtin_identifier, STATE 1463), (sym__get, STATE 2500),
     (sym__set, STATE 2500), (sym__new_builtin, STATE 2079), (sym_final_builtin, STATE 1764),
     (sym__late_builtin, STATE 1915), (sym_this, STATE 962), (sym_super, STATE 1337),
     (sym_comment, STATE 2), (sym_documentation_comment, STATE 2),
     (aux_sym_string_literal_repeat1, STATE 474), (aux_sym_block_repeat1, STATE 24),
     (aux_sym__metadata_repeat1, STATE 1308), (sym_identifier, ACTIONS 71),
     (anon_sym_POUND, ACTIONS 73), (sym_decimal_integer_literal, ACTIONS 75),
     (sym_hex_integer_literal, ACTIONS 77), (sym_decimal_floating_point_literal, ACTIONS 75),
     (anon_sym_true, ACTIONS 79), (anon_sym_false, ACTIONS 81), (anon_sym_DQUOTE, ACTIONS 83),
     (anon_sym_SQUOTE, ACTIONS 85), (anon_sym_DQUOTE_DQUOTE_DQUOTE, ACTIONS 87),
     (anon_sym_SQUOTE_SQUOTE_SQUOTE, ACTIONS 89), (anon_sym_r_DQUOTE, ACTIONS 91),
     (anon_sym_r_SQUOTE, ACTIONS 93), (anon_sym_r_DQUOTE_DQUOTE_DQUOTE, ACTIONS 95),
     (anon_sym_r_SQUOTE_SQUOTE_SQUOTE, ACTIONS 97), (anon_sym_LBRACE, ACTIONS 99),
     (anon_sym_RBRACE, ACTIONS 101), (anon_sym_LBRACK, ACTIONS 103),
     (anon_sym_null, ACTIONS 105), (anon_sym_LPAREN, ACTIONS 107), (anon_sym_throw, ACTIONS 109),
     (anon_sym_LT, ACTIONS 111), (sym_increment_operator, ACTIONS 113),
     (anon_sym_DOT_DOT_DOT, ACTIONS 115), (sym_minus_operator, ACTIONS 117),
     (anon_sym_BANG, ACTIONS 119), (anon_sym_TILDE, ACTIONS 121), (anon_sym_await, ACTIONS 123),
     (anon_sym_switch, ACTIONS 125), (anon_sym_do, ACTIONS 127), (anon_sym_while, ACTIONS 129),
     (anon_sym_continue, ACTIONS 131), (anon_sym_yield, ACTIONS 133),
     (anon_sym_return, ACTIONS 135), (anon_sym_try, ACTIONS 137), (anon_sym_if, ACTIONS 139),
     (anon_sym_for, ACTIONS 141), (anon_sym_AT, ACTIONS 143), (anon_sym_final, ACTIONS 145),
     (sym_void_type, ACTIONS 33), (anon_sym_var, ACTIONS 35), (sym_break_builtin, ACTIONS 147),
     (sym_assert_builtin, ACTIONS 149), (sym_rethrow_builtin, ACTIONS 151),
     (anon_sym_covariant, ACTIONS 153), (anon_sym_Function, ACTIONS 45),
     (anon_sym_get, ACTIONS 47), (anon_sym_set, ACTIONS 61), (anon_sym_new, ACTIONS 155),
     (sym_const_builtin, ACTIONS 157), (anon_sym_late, ACTIONS 67), (anon_sym_this, ACTIONS 159),
     (anon_sym_super, ACTIONS 161), (anon_sym_SLASH_SLASH, ACTIONS 3),
     (anon_sym_SLASH_STAR, ACTIONS 5), (anon_sym_SLASH_SLASH_SLASH, ACTIONS 7),
     (sym__block_comment, ACTIONS 9), (sym__documentation_block_comment, ACTIONS 11)]"

lemma row_ok_2: "table_row_ok 2 ts_parse_table_2"
  by (simp add: row_simps ts_parse_table_2_def)

definition ts_parse_table_3 :: table_row where
  "ts_parse_table_3 = [
     (sym__bool_literal, STATE 989), (sym__numeric_literal, STATE 989),
     (sym__literal, STATE 962), (sym_symbol_literal, STATE 989), (sym_true, STATE 900),
     (sym_false, STATE 900), (sym_string_literal, STATE 989),
     (sym__string_literal_double_quotes, STATE 627),
     (sym__string_literal_single_quotes, STATE 627),
     (sym__string_literal_double_quotes_multiple, STATE 627),
     (sym__string_literal_single_quotes_multiple, STATE 627),
     (sym__raw_string_literal_double_quotes, STATE 627),
     (sym__raw_string_literal_single_quotes, STATE 627),
     (sym__raw_string_literal_double_quotes_multiple, STATE 627),
     (sym__raw_string_literal_single_quotes_multiple, STATE 627), (sym_list_literal, STATE 989),
     (sym_set_or_map_literal, STATE 989), (sym_pair, STATE 2660), (sym__element, STATE 2817),
     (sym_null_literal, STATE 989), (sym_record_literal, STATE 989),
     (sym__record_literal_no_const, STATE 924), (sym__expression, STATE 2565),
     (sym__real_expression, STATE 660), (sym_throw_expression, STATE 908),
     (sym_rethrow_expression, STATE 908), (sym_assignment_expression, STATE 908),
     (sym_assignable_expression, STATE 1940), (sym_lambda_expression, STATE 534),
     (sym_function_expression, STATE 962), (sym_if_null_expression, STATE 1477),
     (sym_conditional_expression, STATE 1477), (sym_logical_or_expression, STATE 1477),
     (sym_logical_and_expression, STATE 1477), (sym_equality_expression, STATE 1477),
     (sym_type_cast_expression, STATE 1477), (sym_type_test_expression, STATE 1477),
     (sym_relational_expression, STATE 1477), (sym_bitwise_or_expression, STATE 1477),
     (sym_bitwise_xor_expression, STATE 1477), (sym_bitwise_and_expression, STATE 1477),
     (sym_shift_expression, STATE 1477), (sym_additive_expression, STATE 1477),
     (sym_multiplicative_expression, STATE 1477), (sym__unary_expression, STATE 1121),
     (sym_unary_expression, STATE 1303), (sym__postfix_expression, STATE 1303),
     (sym_postfix_expression, STATE 1301), (sym_spread_element, STATE 2660),
     (sym_prefix_operator, STATE 431), (sym_negation_operator, STATE 1450),
     (sym__exclamation_operator, STATE 1451), (sym_tilde_operator, STATE 1385),
     (sym_await_expression, STATE 1302), (sym_new_expression, STATE 962),
     (sym_const_object_expression, STATE 962), (sym__primary, STATE 668),
     (sym_parenthesized_expression, STATE 962), (sym_constructor_invocation, STATE 643),
     (sym_constructor_tearoff, STATE 962), (sym_type_arguments, STATE 3200),
     (sym__statement, STATE 556), (sym_local_function_declaration, STATE 533),
     (sym_block, STATE 527), (sym_expression_statement, STATE 527),
     (sym_assert_statement, STATE 527), (sym_assertion, STATE 3380),
     (sym_switch_statement, STATE 527), (sym_switch_expression, STATE 962),
     (sym__parenthesized_pattern, STATE 3182), (sym_list_pattern, STATE 3182),
     (sym_map_pattern, STATE 3182), (sym__map_pattern_entry, STATE 2798),
     (sym_record_pattern, STATE 3182), (sym_object_pattern, STATE 3182),
     (sym_pattern_variable_declaration, STATE 3176), (sym__outer_pattern, STATE 3410),
     (sym_pattern_assignment, STATE 908), (sym_do_statement, STATE 527),
     (sym_break_statement, STATE 527), (sym_continue_statement, STATE 527),
     (sym_yield_statement, STATE 527), (sym_yield_each_statement, STATE 527),
     (sym_return_statement, STATE 527), (sym_try_statement, STATE 527),
     (sym__try_head, STATE 464), (sym_if_element, STATE 2660), (sym_if_statement, STATE 527),
     (sym_while_statement, STATE 527), (sym_for_statement, STATE 527),
     (sym_for_element, STATE 2660), (sym_annotation, STATE 1361), (sym__metadata, STATE 1059),
     (sym_type_parameters, STATE 2932), (sym_initialized_variable_definition, STATE 3176),
     (sym__declared_identifier, STATE 2667), (sym__final_const_var_or_type, STATE 3411),
     (sym__type, STATE 2530), (sym__type_not_function, STATE 1796),
     (sym__type_not_void_not_function, STATE 1896), (sym_function_type, STATE 1848),
     (aux_sym__function_type_tails, STATE 1605), (sym__function_type_tail, STATE 1704),
     (sym_record_type, STATE 1805), (sym__type_name, STATE 2004), (sym__var_or_type, STATE 2755),
     (sym_inferred_type, STATE 1771), (sym_function_signature, STATE 2368),
     (sym__formal_parameter_part, STATE 2339), (sym_formal_parameter_list, STATE 2020),
     (sym__strict_formal_parameter_list, STATE 2016),
     (sym_local_variable_declaration, STATE 542), (sym__covariant, STATE 1795),
     (sym__function_builtin_identifier, STATE 1463), (sym__get, STATE 2500),
     (sym__set, STATE 2500), (sym__new_builtin, STATE 2079), (sym_final_builtin, STATE 1764),
     (sym__late_builtin, STATE 1915), (sym_this, STATE 962), (sym_super, STATE 1337),
     (sym_comment, STATE 3), (sym_documentation_comment, STATE 3),
     (aux_sym_string_literal_repeat1, STATE 474), (aux_sym_block_repeat1, STATE 24),
     (aux_sym__metadata_repeat1, STATE 1308), (sym_identifier, ACTIONS 71),
     (anon_sym_POUND, ACTIONS 73), (sym_decimal_integer_literal, ACTIONS 75),
     (sym_hex_integer_literal, ACTIONS 77), (sym_decimal_floating_point_literal, ACTIONS 75),
     (anon_sym_true, ACTIONS 79), (anon_sym_false, ACTIONS 81), (anon_sym_DQUOTE, ACTIONS 83),
     (anon_sym_SQUOTE, ACTIONS 85), (anon_sym_DQUOTE_DQUOTE_DQUOTE, ACTIONS 87),
     (anon_sym_SQUOTE_SQUOTE_SQUOTE, ACTIONS 89), (anon_sym_r_DQUOTE, ACTIONS 91),
     (anon_sym_r_SQUOTE, ACTIONS 93), (anon_sym_r_DQUOTE_DQUOTE_DQUOTE, ACTIONS 95),
     (anon_sym_r_SQUOTE_SQUOTE_SQUOTE, ACTIONS 97), (anon_sym_LBRACE, ACTIONS 99),
     (anon_sym_RBRACE, ACTIONS 163), (anon_sym_LBRACK, ACTIONS 103),
     (anon_sym_null, ACTIONS 105), (anon_sym_LPAREN, ACTIONS 107), (anon_sym_throw, ACTIONS 109),
     (anon_sym_LT, ACTIONS 111), (sym_increment_operator, ACTIONS 113),
     (anon_sym_DOT_DOT_DOT, ACTIONS 115), (sym_minus_operator, ACTIONS 117),
     (anon_sym_BANG, ACTIONS 119), (anon_sym_TILDE, ACTIONS 121), (anon_sym_await, ACTIONS 123),
     (anon_sym_switch, ACTIONS 125), (anon_sym_do, ACTIONS 127), (anon_sym_while, ACTIONS 129),
     (anon_sym_continue, ACTIONS 131), (anon_sym_yield, ACTIONS 133),
     (anon_sym_return, ACTIONS 135), (anon_sym_try, ACTIONS 137), (anon_sym_if, ACTIONS 139),
     (anon_sym_for, ACTIONS 141), (anon_sym_AT, ACTIONS 143), (anon_sym_final, ACTIONS 145),
     (sym_void_type, ACTIONS 33), (anon_sym_var, ACTIONS 35), (sym_break_builtin, ACTIONS 147),
     (sym_assert_builtin, ACTIONS 149), (sym_rethrow_builtin, ACTIONS 151),
     (anon_sym_covariant, ACTIONS 153), (anon_sym_Function, ACTIONS 45),
     (anon_sym_get, ACTIONS 47), (anon_sym_set, ACTIONS 61), (anon_sym_new, ACTIONS 155),
     (sym_const_builtin, ACTIONS 157), (anon_sym_late, ACTIONS 67), (anon_sym_this, ACTIONS 159),
     (anon_sym_super, ACTIONS 161), (anon_sym_SLASH_SLASH, ACTIONS 3),
     (anon_sym_SLASH_STAR, ACTIONS 5), (anon_sym_SLASH_SLASH_SLASH, ACTIONS 7),
     (sym__block_comment, ACTIONS 9), (sym__documentation_block_comment, ACTIONS 11)]"

lemma row_ok_3: "table_row_ok 3 ts_parse_table_3"
  by (simp add: row_simps ts_parse_table_3_def)

definition ts_parse_table_4 :: table_row where
  "ts_parse_table_4 = [
     (sym__bool_literal, STATE 989), (sym__numeric_literal, STATE 989),
     (sym__literal, STATE 962), (sym_symbol_literal, STATE 989), (sym_true, STATE 900),
     (sym_false, STATE 900), (sym_string_literal, STATE 989),
     (sym__string_literal_double_quotes, STATE 627),
     (sym__string_literal_single_quotes, STATE 627),
     (sym__string_literal_double_quotes_multiple, STATE 627),
     (sym__string_literal_single_quotes_multiple, STATE 627),
     (sym__raw_string_literal_double_quotes, STATE 627),
     (sym__raw_string_literal_single_quotes, STATE 627),
     (sym__raw_string_literal_double_quotes_multiple, STATE 627),
     (sym__raw_string_literal_single_quotes_multiple, STATE 627), (sym_list_literal, STATE 989),
     (sym_set_or_map_literal, STATE 989), (sym_pair, STATE 2660), (sym__element, STATE 2817),
     (sym_null_literal, STATE 989), (sym_record_literal, STATE 989),
     (sym__record_literal_no_const, STATE 924), (sym__expression, STATE 2565),
     (sym__real_expression, STATE 660), (sym_throw_expression, STATE 908),
     (sym_rethrow_expression, STATE 908), (sym_assignment_expression, STATE 908),
     (sym_assignable_expression, STATE 1940), (sym_lambda_expression, STATE 534),
     (sym_function_expression, STATE 962), (sym_if_null_expression, STATE 1477),
     (sym_conditional_expression, STATE 1477), (sym_logical_or_expression, STATE 1477),
     (sym_logical_and_expression, STATE 1477), (sym_equality_expression, STATE 1477),
     (sym_type_cast_expression, STATE 1477), (sym_type_test_expression, STATE 1477),
     (sym_relational_expression, STATE 1477), (sym_bitwise_or_expression, STATE 1477),
     (sym_bitwise_xor_expression, STATE 1477), (sym_bitwise_and_expression, STATE 1477),
     (sym_shift_expression, STATE 1477), (sym_additive_expression, STATE 1477),
     (sym_multiplicative_expression, STATE 1477), (sym__unary_expression, STATE 1121),
     (sym_unary_expression, STATE 1303), (sym__postfix_expression, STATE 1303),
     (sym_postfix_expression, STATE 1301), (sym_spread_element, STATE 2660),
     (sym_prefix_operator, STATE 431), (sym_negation_operator, STATE 1450),
     (sym__exclamation_operator, STATE 1451), (sym_tilde_operator, STATE 1385),
     (sym_await_expression, STATE 1302), (sym_new_expression, STATE 962),
     (sym_const_object_expression, STATE 962), (sym__primary, STATE 668),
     (sym_parenthesized_expression, STATE 962), (sym_constructor_invocation, STATE 643),
     (sym_constructor_tearoff, STATE 962), (sym_type_arguments, STATE 3200),
     (sym__statement, STATE 556), (sym_local_function_declaration, STATE 533),
     (sym_block, STATE 527), (sym_expression_statement, STATE 527),
     (sym_assert_statement, STATE 527), (sym_assertion, STATE 3380),
     (sym_switch_statement, STATE 527), (sym_switch_expression, STATE 962),
     (sym__parenthesized_pattern, STATE 3182), (sym_list_pattern, STATE 3182),
     (sym_map_pattern, STATE 3182), (sym__map_pattern_entry, STATE 2798),
     (sym_record_pattern, STATE 3182), (sym_object_pattern, STATE 3182),
     (sym_pattern_variable_declaration, STATE 3176), (sym__outer_pattern, STATE 3410),
     (sym_pattern_assignment, STATE 908), (sym_do_statement, STATE 527),
     (sym_break_statement, STATE 527), (sym_continue_statement, STATE 527),
     (sym_yield_statement, STATE 527), (sym_yield_each_statement, STATE 527),
     (sym_return_statement, STATE 527), (sym_try_statement, STATE 527),
     (sym__try_head, STATE 464), (sym_if_element, STATE 2660), (sym_if_statement, STATE 527),
     (sym_while_statement, STATE 527), (sym_for_statement, STATE 527),
     (sym_for_element, STATE 2660), (sym_annotation, STATE 1361), (sym__metadata, STATE 1059),
     (sym_type_parameters, STATE 2932), (sym_initialized_variable_definition, STATE 3176),
     (sym__declared_identifier, STATE 2667), (sym__final_const_var_or_type, STATE 3411),
     (sym__type, STATE 2530), (sym__type_not_function, STATE 1796),
     (sym__type_not_void_not_function, STATE 1896), (sym_function_type, STATE 1848),
     (aux_sym__function_type_tails, STATE 1605), (sym__function_type_tail, STATE 1704),
     (sym_record_type, STATE 1805), (sym__type_name, STATE 2004), (sym__var_or_type, STATE 2755),
     (sym_inferred_type, STATE 1771), (sym_function_signature, STATE 2368),
     (sym__formal_parameter_part, STATE 2339), (sym_formal_parameter_list, STATE 2020),
     (sym__strict_formal_parameter_list, STATE 2016),
     (sym_local_variable_declaration, STATE 542), (sym__covariant, STATE 1795),
     (sym__function_builtin_identifier, STATE 1463), (sym__get, STATE 2500),
     (sym__set, STATE 2500), (sym__new_builtin, STATE 2079), (sym_final_builtin, STATE 1764),
     (sym__late_builtin, STATE 1915), (sym_this, STATE 962), (sym_super, STATE 1337),
     (sym_comment, STATE 4), (sym_documentation_comment, STATE 4),
     (aux_sym_string_literal_repeat1, STATE 474), (aux_sym_block_repeat1, STATE 24),
     (aux_sym__metadata_repeat1, STATE 1308), (sym_identifier, ACTIONS 71),
     (anon_sym_POUND, ACTIONS 73), (sym_decimal_integer_literal, ACTIONS 75),
     (sym_hex_integer_literal, ACTIONS 77), (sym_decimal_floating_point_literal, ACTIONS 75),
     (anon_sym_true, ACTIONS 79), (anon_sym_false, ACTIONS 81), (anon_sym_DQUOTE, ACTIONS 83),
     (anon_sym_SQUOTE, ACTIONS 85), (anon_sym_DQUOTE_DQUOTE_DQUOTE, ACTIONS 87),
     (anon_sym_SQUOTE_SQUOTE_SQUOTE, ACTIONS 89), (anon_sym_r_DQUOTE, ACTIONS 91),
     (anon_sym_r_SQUOTE, ACTIONS 93), (anon_sym_r_DQUOTE_DQUOTE_DQUOTE, ACTIONS 95),
     (anon_sym_r_SQUOTE_SQUOTE_SQUOTE, ACTIONS 97), (anon_sym_LBRACE, ACTIONS 99),
     (anon_sym_RBRACE, ACTIONS 165), (anon_sym_LBRACK, ACTIONS 103),
     (anon_sym_null, ACTIONS 105), (anon_sym_LPAREN, ACTIONS 107), (anon_sym_throw, ACTIONS 109),
     (anon_sym_LT, ACTIONS 111), (sym_increment_operator, ACTIONS 113),
     (anon_sym_DOT_DOT_DOT, ACTIONS 115), (sym_minus_operator, ACTIONS 117),
     (anon_sym_BANG, ACTIONS 119), (anon_sym_TILDE, ACTIONS 121), (anon_sym_await, ACTIONS 123),
     (anon_sym_switch, ACTIONS 125), (anon_sym_do, ACTIONS 127), (anon_sym_while, ACTIONS 129),
     (anon_sym_continue, ACTIONS 131), (anon_sym_yield, ACTIONS 133),
     (anon_sym_return, ACTIONS 135), (anon_sym_try, ACTIONS 137), (anon_sym_if, ACTIONS 139),
     (anon_sym_for, ACTIONS 141), (anon_sym_AT, ACTIONS 143), (anon_sym_final, ACTIONS 145),
     (sym_void_type, ACTIONS 33), (anon_sym_var, ACTIONS 35), (sym_break_builtin, ACTIONS 147),
     (sym_assert_builtin, ACTIONS 149), (sym_rethrow_builtin, ACTIONS 151),
     (anon_sym_covariant, ACTIONS 153), (anon_sym_Function, ACTIONS 45),
     (anon_sym_get, ACTIONS 47), (anon_sym_set, ACTIONS 61), (anon_sym_new, ACTIONS 155),
     (sym_const_builtin, ACTIONS 157), (anon_sym_late, ACTIONS 67), (anon_sym_this, ACTIONS 159),
     (anon_sym_super, ACTIONS 161), (anon_sym_SLASH_SLASH, ACTIONS 3),
     (anon_sym_SLASH_STAR, ACTIONS 5), (anon_sym_SLASH_SLASH_SLASH, ACTIONS 7),
     (sym__block_comment, ACTIONS 9), (sym__documentation_block_comment, ACTIONS 11)]"

lemma row_ok_4: "table_row_ok 4 ts_parse_table_4"
  by (simp add: row_simps ts_parse_table_4_def)

definition ts_parse_table_5 :: table_row where
  "ts_parse_table_5 = [
     (sym__bool_literal, STATE 989), (sym__numeric_literal, STATE 989),
     (sym__literal, STATE 962), (sym_symbol_literal, STATE 989), (sym_true, STATE 900),
     (sym_false, STATE 900), (sym_string_literal, STATE 989),
     (sym__string_literal_double_quotes, STATE 627),
     (sym__string_literal_single_quotes, STATE 627),
     (sym__string_literal_double_quotes_multiple, STATE 627),
     (sym__string_literal_single_quotes_multiple, STATE 627),
     (sym__raw_string_literal_double_quotes, STATE 627),
     (sym__raw_string_literal_single_quotes, STATE 627),
     (sym__raw_string_literal_double_quotes_multiple, STATE 627),
     (sym__raw_string_literal_single_quotes_multiple, STATE 627), (sym_list_literal, STATE 989),
     (sym_set_or_map_literal, STATE 989), (sym_pair, STATE 2660), (sym__element, STATE 2645),
     (sym_null_literal, STATE 989), (sym_record_literal, STATE 989),
     (sym__record_literal_no_const, STATE 924), (sym__expression, STATE 2503),
     (sym__real_expression, STATE 660), (sym_throw_expression, STATE 908),
     (sym_rethrow_expression, STATE 908), (sym_assignment_expression, STATE 908),
     (sym_assignable_expression, STATE 1940), (sym_lambda_expression, STATE 534),
     (sym_function_expression, STATE 962), (sym_if_null_expression, STATE 1477),
     (sym_conditional_expression, STATE 1477), (sym_logical_or_expression, STATE 1477),
     (sym_logical_and_expression, STATE 1477), (sym_equality_expression, STATE 1477),
     (sym_type_cast_expression, STATE 1477), (sym_type_test_expression, STATE 1477),
     (sym_relational_expression, STATE 1477), (sym_bitwise_or_expression, STATE 1477),
     (sym_bitwise_xor_expression, STATE 1477), (sym_bitwise_and_expression, STATE 1477),
     (sym_shift_expression, STATE 1477), (sym_additive_expression, STATE 1477),
     (sym_multiplicative_expression, STATE 1477), (sym__unary_expression, STATE 1121),
     (sym_unary_expression, STATE 1303), (sym__postfix_expression, STATE 1303),
     (sym_postfix_expression, STATE 1301), (sym_spread_element, STATE 2660),
     (sym_prefix_operator, STATE 431), (sym_negation_operator, STATE 1450),
     (sym__exclamation_operator, STATE 1451), (sym_tilde_operator, STATE 1385),
     (sym_await_expression, STATE 1302), (sym_new_expression, STATE 962),
     (sym_const_object_expression, STATE 962), (sym__primary, STATE 668),
     (sym_parenthesized_expression, STATE 962), (sym_constructor_invocation, STATE 643),
     (sym_constructor_tearoff, STATE 962), (sym_type_arguments, STATE 3200),
     (sym__statement, STATE 547), (sym_local_function_declaration, STATE 533),
     (sym_block, STATE 527), (sym_expression_statement, STATE 527),
     (sym_assert_statement, STATE 527), (sym_assertion, STATE 3380),
     (sym_switch_statement, STATE 527), (sym_switch_expression, STATE 962),
     (sym__parenthesized_pattern, STATE 3182), (sym_list_pattern, STATE 3182),
     (sym_map_pattern, STATE 3182), (sym_record_pattern, STATE 3182),
     (sym_object_pattern, STATE 3182), (sym_pattern_variable_declaration, STATE 3176),
     (sym__outer_pattern, STATE 3410), (sym_pattern_assignment, STATE 908),
     (sym_do_statement, STATE 527), (sym_break_statement, STATE 527),
     (sym_continue_statement, STATE 527), (sym_yield_statement, STATE 527),
     (sym_yield_each_statement, STATE 527), (sym_return_statement, STATE 527),
     (sym_try_statement, STATE 527), (sym__try_head, STATE 464), (sym_if_element, STATE 2660),
     (sym_if_statement, STATE 527), (sym_while_statement, STATE 527),
     (sym_for_statement, STATE 527), (sym_for_element, STATE 2660), (sym_annotation, STATE 1361),
     (sym__metadata, STATE 1059), (sym_type_parameters, STATE 2932),
     (sym_initialized_variable_definition, STATE 3176), (sym__declared_identifier, STATE 2667),
     (sym__final_const_var_or_type, STATE 3411), (sym__type, STATE 2530),
     (sym__type_not_function, STATE 1796), (sym__type_not_void_not_function, STATE 1896),
     (sym_function_type, STATE 1848), (aux_sym__function_type_tails, STATE 1605),
     (sym__function_type_tail, STATE 1704), (sym_record_type, STATE 1805),
     (sym__type_name, STATE 2004), (sym__var_or_type, STATE 2755),
     (sym_inferred_type, STATE 1771), (sym_function_signature, STATE 2368),
     (sym__formal_parameter_part, STATE 2339), (sym_formal_parameter_list, STATE 2020),
     (sym__strict_formal_parameter_list, STATE 2016),
     (sym_local_variable_declaration, STATE 542), (sym__covariant, STATE 1795),
     (sym__function_builtin_identifier, STATE 1463), (sym__get, STATE 2500),
     (sym__set, STATE 2500), (sym__new_builtin, STATE 2079), (sym_final_builtin, STATE 1764),
     (sym__late_builtin, STATE 1915), (sym_this, STATE 962), (sym_super, STATE 1337),
     (sym_comment, STATE 5), (sym_documentation_comment, STATE 5),
     (aux_sym_string_literal_repeat1, STATE 474), (aux_sym__metadata_repeat1, STATE 1308),
     (sym_identifier, ACTIONS 71), (anon_sym_POUND, ACTIONS 73),
     (sym_decimal_integer_literal, ACTIONS 75), (sym_hex_integer_literal, ACTIONS 77),
     (sym_decimal_floating_point_literal, ACTIONS 75), (anon_sym_true, ACTIONS 79),
     (anon_sym_false, ACTIONS 81), (anon_sym_DQUOTE, ACTIONS 83), (anon_sym_SQUOTE, ACTIONS 85),
     (anon_sym_DQUOTE_DQUOTE_DQUOTE, ACTIONS 87), (anon_sym_SQUOTE_SQUOTE_SQUOTE, ACTIONS 89),
     (anon_sym_r_DQUOTE, ACTIONS 91), (anon_sym_r_SQUOTE, ACTIONS 93),
     (anon_sym_r_DQUOTE_DQUOTE_DQUOTE, ACTIONS 95),
     (anon_sym_r_SQUOTE_SQUOTE_SQUOTE, ACTIONS 97), (anon_sym_LBRACE, ACTIONS 99),
     (anon_sym_LBRACK, ACTIONS 103), (anon_sym_null, ACTIONS 105),
     (anon_sym_LPAREN, ACTIONS 107), (anon_sym_throw, ACTIONS 109), (anon_sym_LT, ACTIONS 111),
     (sym_increment_operator, ACTIONS 113), (anon_sym_DOT_DOT_DOT, ACTIONS 167),
     (sym_minus_operator, ACTIONS 117), (anon_sym_BANG, ACTIONS 119),
     (anon_sym_TILDE, ACTIONS 121), (anon_sym_await, ACTIONS 123),
     (anon_sym_switch, ACTIONS 125), (anon_sym_do, ACTIONS 127), (anon_sym_while, ACTIONS 129),
     (anon_sym_continue, ACTIONS 131), (anon_sym_yield, ACTIONS 133),
     (anon_sym_return, ACTIONS 135), (anon_sym_try, ACTIONS 137), (anon_sym_if, ACTIONS 139),
     (anon_sym_for, ACTIONS 141), (anon_sym_AT, ACTIONS 143), (anon_sym_final, ACTIONS 145),
     (sym_void_type, ACTIONS 33), (anon_sym_var, ACTIONS 35), (sym_break_builtin, ACTIONS 147),
     (sym_assert_builtin, ACTIONS 149), (sym_rethrow_builtin, ACTIONS 151),
     (anon_sym_covariant, ACTIONS 153), (anon_sym_Function, ACTIONS 45),
     (anon_sym_get, ACTIONS 47), (anon_sym_set, ACTIONS 61), (anon_sym_new, ACTIONS 155),
     (sym_const_builtin, ACTIONS 157), (anon_sym_late, ACTIONS 67), (anon_sym_this, ACTIONS 159),
     (anon_sym_super, ACTIONS 161), (anon_sym_SLASH_SLASH, ACTIONS 3),
     (anon_sym_SLASH_STAR, ACTIONS 5), (anon_sym_SLASH_SLASH_SLASH, ACTIONS 7),
     (sym__block_comment, ACTIONS 9), (sym__documentation_block_comment, ACTIONS 11)]"

lemma row_ok_5: "table_row_ok 5 ts_parse_table_5"
  by (simp add: row_simps ts_parse_table_5_def)

definition ts_parse_table_6 :: table_row where
  "ts_parse_table_6 = [
     (sym__bool_literal, STATE 989), (sym__numeric_literal, STATE 989),
     (sym__literal, STATE 962), (sym_symbol_literal, STATE 989), (sym_true, STATE 900),
     (sym_false, STATE 900), (sym_string_literal, STATE 989),
     (sym__string_literal_double_quotes, STATE 627),
     (sym__string_literal_single_quotes, STATE 627),
     (sym__string_literal_double_quotes_multiple, STATE 627),
     (sym__string_literal_single_quotes_multiple, STATE 627),
     (sym__raw_string_literal_double_quotes, STATE 627),
     (sym__raw_string_literal_single_quotes, STATE 627),
     (sym__raw_string_literal_double_quotes_multiple, STATE 627),
     (sym__raw_string_literal_single_quotes_multiple, STATE 627), (sym_list_literal, STATE 989),
     (sym_set_or_map_literal, STATE 989), (sym_pair, STATE 2660), (sym__element, STATE 2600),
     (sym_null_literal, STATE 989), (sym_record_literal, STATE 989),
     (sym__record_literal_no_const, STATE 924), (sym__expression, STATE 2503),
     (sym__real_expression, STATE 660), (sym_throw_expression, STATE 908),
     (sym_rethrow_expression, STATE 908), (sym_assignment_expression, STATE 908),
     (sym_assignable_expression, STATE 1940), (sym_lambda_expression, STATE 534),
     (sym_function_expression, STATE 962), (sym_if_null_expression, STATE 1477),
     (sym_conditional_expression, STATE 1477), (sym_logical_or_expression, STATE 1477),
     (sym_logical_and_expression, STATE 1477), (sym_equality_expression, STATE 1477),
     (sym_type_cast_expression, STATE 1477), (sym_type_test_expression, STATE 1477),
     (sym_relational_expression, STATE 1477), (sym_bitwise_or_expression, STATE 1477),
     (sym_bitwise_xor_expression, STATE 1477), (sym_bitwise_and_expression, STATE 1477),
     (sym_shift_expression, STATE 1477), (sym_additive_expression, STATE 1477),
     (sym_multiplicative_expression, STATE 1477), (sym__unary_expression, STATE 1121),
     (sym_unary_expression, STATE 1303), (sym__postfix_expression, STATE 1303),
     (sym_postfix_expression, STATE 1301), (sym_spread_element, STATE 2660),
     (sym_prefix_operator, STATE 431), (sym_negation_operator, STATE 1450),
     (sym__exclamation_operator, STATE 1451), (sym_tilde_operator, STATE 1385),
     (sym_await_expression, STATE 1302), (sym_new_expression, STATE 962),
     (sym_const_object_expression, STATE 962), (sym__primary, STATE 668),
     (sym_parenthesized_expression, STATE 962), (sym_constructor_invocation, STATE 643),
     (sym_constructor_tearoff, STATE 962), (sym_type_arguments, STATE 3200),
     (sym__statement, STATE 539), (sym_local_function_declaration, STATE 533),
     (sym_block, STATE 527), (sym_expression_statement, STATE 527),
     (sym_assert_statement, STATE 527), (sym_assertion, STATE 3380),
     (sym_switch_statement, STATE 527), (sym_switch_expression, STATE 962),
     (sym__parenthesized_pattern, STATE 3182), (sym_list_pattern, STATE 3182),
     (sym_map_pattern, STATE 3182), (sym_record_pattern, STATE 3182),
     (sym_object_pattern, STATE 3182), (sym_pattern_variable_declaration, STATE 3176),
     (sym__outer_pattern, STATE 3410), (sym_pattern_assignment, STATE 908),
     (sym_do_statement, STATE 527), (sym_break_statement, STATE 527),
     (sym_continue_statement, STATE 527), (sym_yield_statement, STATE 527),
     (sym_yield_each_statement, STATE 527), (sym_return_statement, STATE 527),
     (sym_try_statement, STATE 527), (sym__try_head, STATE 464), (sym_if_element, STATE 2660),
     (sym_if_statement, STATE 527), (sym_while_statement, STATE 527),
     (sym_for_statement, STATE 527), (sym_for_element, STATE 2660), (sym_annotation, STATE 1361),
     (sym__metadata, STATE 1059), (sym_type_parameters, STATE 2932),
     (sym_initialized_variable_definition, STATE 3176), (sym__declared_identifier, STATE 2667),
     (sym__final_const_var_or_type, STATE 3411), (sym__type, STATE 2530),
     (sym__type_not_function, STATE 1796), (sym__type_not_void_not_function, STATE 1896),
     (sym_function_type, STATE 1848), (aux_sym__function_type_tails, STATE 1605),
     (sym__function_type_tail, STATE 1704), (sym_record_type, STATE 1805),
     (sym__type_name, STATE 2004), (sym__var_or_type, STATE 2755),
     (sym_inferred_type, STATE 1771), (sym_function_signature, STATE 2368),
     (sym__formal_parameter_part, STATE 2339), (sym_formal_parameter_list, STATE 2020),
     (sym__strict_formal_parameter_list, STATE 2016),
     (sym_local_variable_declaration, STATE 542), (sym__covariant, STATE 1795),
     (sym__function_builtin_identifier, STATE 1463), (sym__get, STATE 2500),
     (sym__set, STATE 2500), (sym__new_builtin, STATE 2079), (sym_final_builtin, STATE 1764),
     (sym__late_builtin, STATE 1915), (sym_this, STATE 962), (sym_super, STATE 1337),
     (sym_comment, STATE 6), (sym_documentation_comment, STATE 6),
     (aux_sym_string_literal_repeat1, STATE 474), (aux_sym__metadata_repeat1, STATE 1308),
     (sym_identifier, ACTIONS 71), (anon_sym_POUND, ACTIONS 73),
     (sym_decimal_integer_literal, ACTIONS 75), (sym_hex_integer_literal, ACTIONS 77),
     (sym_decimal_floating_point_literal, ACTIONS 75), (anon_sym_true, ACTIONS 79),
     (anon_sym_false, ACTIONS 81), (anon_sym_DQUOTE, ACTIONS 83), (anon_sym_SQUOTE, ACTIONS 85),
     (anon_sym_DQUOTE_DQUOTE_DQUOTE, ACTIONS 87), (anon_sym_SQUOTE_SQUOTE_SQUOTE, ACTIONS 89),
     (anon_sym_r_DQUOTE, ACTIONS 91), (anon_sym_r_SQUOTE, ACTIONS 93),
     (anon_sym_r_DQUOTE_DQUOTE_DQUOTE, ACTIONS 95),
     (anon_sym_r_SQUOTE_SQUOTE_SQUOTE, ACTIONS 97), (anon_sym_LBRACE, ACTIONS 99),
     (anon_sym_LBRACK, ACTIONS 103), (anon_sym_null, ACTIONS 105),
     (anon_sym_LPAREN, ACTIONS 107), (anon_sym_throw, ACTIONS 109), (anon_sym_LT, ACTIONS 111),
     (sym_increment_operator, ACTIONS 113), (anon_sym_DOT_DOT_DOT, ACTIONS 167),
     (sym_minus_operator, ACTIONS 117), (anon_sym_BANG, ACTIONS 119),
     (anon_sym_TILDE, ACTIONS 121), (anon_sym_await, ACTIONS 123),
     (anon_sym_switch, ACTIONS 125), (anon_sym_do, ACTIONS 127), (anon_sym_while, ACTIONS 129),
     (anon_sym_continue, ACTIONS 131), (anon_sym_yield, ACTIONS 133),
     (anon_sym_return, ACTIONS 135), (anon_sym_try, ACTIONS 137), (anon_sym_if, ACTIONS 139),
     (anon_sym_for, ACTIONS 141), (anon_sym_AT, ACTIONS 143), (anon_sym_final, ACTIONS 145),
     (sym_void_type, ACTIONS 33), (anon_sym_var, ACTIONS 35), (sym_break_builtin, ACTIONS 147),
     (sym_assert_builtin, ACTIONS 149), (sym_rethrow_builtin, ACTIONS 151),
     (anon_sym_covariant, ACTIONS 153), (anon_sym_Function, ACTIONS 45),
     (anon_sym_get, ACTIONS 47), (anon_sym_set, ACTIONS 61), (anon_sym_new, ACTIONS 155),
     (sym_const_builtin, ACTIONS 157), (anon_sym_late, ACTIONS 67), (anon_sym_this, ACTIONS 159),
     (anon_sym_super, ACTIONS 161), (anon_sym_SLASH_SLASH, ACTIONS 3),
     (anon_sym_SLASH_STAR, ACTIONS 5), (anon_sym_SLASH_SLASH_SLASH, ACTIONS 7),
     (sym__block_comment, ACTIONS 9), (sym__documentation_block_comment, ACTIONS 11)]"

lemma row_ok_6: "table_row_ok 6 ts_parse_table_6"
  by (simp add: row_simps ts_parse_table_6_def)

definition ts_parse_table_7 :: table_row where
  "ts_parse_table_7 = [
     (sym__bool_literal, STATE 989), (sym__numeric_literal, STATE 989),
     (sym__literal, STATE 962), (sym_symbol_literal, STATE 989), (sym_true, STATE 900),
     (sym_false, STATE 900), (sym_string_literal, STATE 989),
     (sym__string_literal_double_quotes, STATE 627),
     (sym__string_literal_single_quotes, STATE 627),
     (sym__string_literal_double_quotes_multiple, STATE 627),
     (sym__string_literal_single_quotes_multiple, STATE 627),
     (sym__raw_string_literal_double_quotes, STATE 627),
     (sym__raw_string_literal_single_quotes, STATE 627),
     (sym__raw_string_literal_double_quotes_multiple, STATE 627),
     (sym__raw_string_literal_single_quotes_multiple, STATE 627), (sym_list_literal, STATE 989),
     (sym_set_or_map_literal, STATE 989), (sym_pair, STATE 2660), (sym__element, STATE 2589),
     (sym_null_literal, STATE 989), (sym_record_literal, STATE 989),
     (sym__record_literal_no_const, STATE 924), (sym__expression, STATE 2503),
     (sym__real_expression, STATE 660), (sym_throw_expression, STATE 908),
     (sym_rethrow_expression, STATE 908), (sym_assignment_expression, STATE 908),
     (sym_assignable_expression, STATE 1940), (sym_lambda_expression, STATE 534),
     (sym_function_expression, STATE 962), (sym_if_null_expression, STATE 1477),
     (sym_conditional_expression, STATE 1477), (sym_logical_or_expression, STATE 1477),
     (sym_logical_and_expression, STATE 1477), (sym_equality_expression, STATE 1477),
     (sym_type_cast_expression, STATE 1477), (sym_type_test_expression, STATE 1477),
     (sym_relational_expression, STATE 1477), (sym_bitwise_or_expression, STATE 1477),
     (sym_bitwise_xor_expression, STATE 1477), (sym_bitwise_and_expression, STATE 1477),
     (sym_shift_expression, STATE 1477), (sym_additive_expression, STATE 1477),
     (sym_multiplicative_expression, STATE 1477), (sym__unary_expression, STATE 1121),
     (sym_unary_expression, STATE 1303), (sym__postfix_expression, STATE 1303),
     (sym_postfix_expression, STATE 1301), (sym_spread_element, STATE 2660),
     (sym_prefix_operator, STATE 431), (sym_negation_operator, STATE 1450),
     (sym__exclamation_operator, STATE 1451), (sym_tilde_operator, STATE 1385),
     (sym_await_expression, STATE 1302), (sym_new_expression, STATE 962),
     (sym_const_object_expression, STATE 962), (sym__primary, STATE 668),
     (sym_parenthesized_expression, STATE 962), (sym_constructor_invocation, STATE 643),
     (sym_constructor_tearoff, STATE 962), (sym_type_arguments, STATE 3200),
     (sym__statement, STATE 531), (sym_local_function_declaration, STATE 533),
     (sym_block, STATE 527), (sym_expression_statement, STATE 527),
     (sym_assert_statement, STATE 527), (sym_assertion, STATE 3380),
     (sym_switch_statement, STATE 527), (sym_switch_expression, STATE 962),
     (sym__parenthesized_pattern, STATE 3182), (sym_list_pattern, STATE 3182),
     (sym_map_pattern, STATE 3182), (sym_record_pattern, STATE 3182),
     (sym_object_pattern, STATE 3182), (sym_pattern_variable_declaration, STATE 3176),
     (sym__outer_pattern, STATE 3410), (sym_pattern_assignment, STATE 908),
     (sym_do_statement, STATE 527), (sym_break_statement, STATE 527),
     (sym_continue_statement, STATE 527), (sym_yield_statement, STATE 527),
     (sym_yield_each_statement, STATE 527), (sym_return_statement, STATE 527),
     (sym_try_statement, STATE 527), (sym__try_head, STATE 464), (sym_if_element, STATE 2660),
     (sym_if_statement, STATE 527), (sym_while_statement, STATE 527),
     (sym_for_statement, STATE 527), (sym_for_element, STATE 2660), (sym_annotation, STATE 1361),
     (sym__metadata, STATE 1059), (sym_type_parameters, STATE 2932),
     (sym_initialized_variable_definition, STATE 3176), (sym__declared_identifier, STATE 2667),
     (sym__final_const_var_or_type, STATE 3411), (sym__type, STATE 2530),
     (sym__type_not_function, STATE 1796), (sym__type_not_void_not_function, STATE 1896),
     (sym_function_type, STATE 1848), (aux_sym__function_type_tails, STATE 1605),
     (sym__function_type_tail, STATE 1704), (sym_record_type, STATE 1805),
     (sym__type_name, STATE 2004), (sym__var_or_type, STATE 2755),
     (sym_inferred_type, STATE 1771), (sym_function_signature, STATE 2368),
     (sym__formal_parameter_part, STATE 2339), (sym_formal_parameter_list, STATE 2020),
     (sym__strict_formal_parameter_list, STATE 2016),
     (sym_local_variable_declaration, STATE 542), (sym__covariant, STATE 1795),
     (sym__function_builtin_identifier, STATE 1463), (sym__get, STATE 2500),
     (sym__set, STATE 2500), (sym__new_builtin, STATE 2079), (sym_final_builtin, STATE 1764),
     (sym__late_builtin, STATE 1915), (sym_this, STATE 962), (sym_super, STATE 1337),
     (sym_comment, STATE 7), (sym_documentation_comment, STATE 7),
     (aux_sym_string_literal_repeat1, STATE 474), (aux_sym__metadata_repeat1, STATE 1308),
     (sym_identifier, ACTIONS 71), (anon_sym_POUND, ACTIONS 73),
     (sym_decimal_integer_literal, ACTIONS 75), (sym_hex_integer_literal, ACTIONS 77),
     (sym_decimal_floating_point_literal, ACTIONS 75), (anon_sym_true, ACTIONS 79),
     (anon_sym_false, ACTIONS 81), (anon_sym_DQUOTE, ACTIONS 83), (anon_sym_SQUOTE, ACTIONS 85),
     (anon_sym_DQUOTE_DQUOTE_DQUOTE, ACTIONS 87), (anon_sym_SQUOTE_SQUOTE_SQUOTE, ACTIONS 89),
     (anon_sym_r_DQUOTE, ACTIONS 91), (anon_sym_r_SQUOTE, ACTIONS 93),
     (anon_sym_r_DQUOTE_DQUOTE_DQUOTE, ACTIONS 95),
     (anon_sym_r_SQUOTE_SQUOTE_SQUOTE, ACTIONS 97), (anon_sym_LBRACE, ACTIONS 99),
     (anon_sym_LBRACK, ACTIONS 103), (anon_sym_null, ACTIONS 105),
     (anon_sym_LPAREN, ACTIONS 107), (anon_sym_throw, ACTIONS 109), (anon_sym_LT, ACTIONS 111),
     (sym_increment_operator, ACTIONS 113), (anon_sym_DOT_DOT_DOT, ACTIONS 167),
     (sym_minus_operator, ACTIONS 117), (anon_sym_BANG, ACTIONS 119),
     (anon_sym_TILDE, ACTIONS 121), (anon_sym_await, ACTIONS 123),
     (anon_sym_switch, ACTIONS 125), (anon_sym_do, ACTIONS 127), (anon_sym_while, ACTIONS 129),
     (anon_sym_continue, ACTIONS 131), (anon_sym_yield, ACTIONS 133),
     (anon_sym_return, ACTIONS 135), (anon_sym_try, ACTIONS 137), (anon_sym_if, ACTIONS 139),
     (anon_sym_for, ACTIONS 141), (anon_sym_AT, ACTIONS 143), (anon_sym_final, ACTIONS 145),
     (sym_void_type, ACTIONS 33), (anon_sym_var, ACTIONS 35), (sym_break_builtin, ACTIONS 147),
     (sym_assert_builtin, ACTIONS 149), (sym_rethrow_builtin, ACTIONS 151),
     (anon_sym_covariant, ACTIONS 153), (anon_sym_Function, ACTIONS 45),
     (anon_sym_get, ACTIONS 47), (anon_sym_set, ACTIONS 61), (anon_sym_new, ACTIONS 155),
     (sym_const_builtin, ACTIONS 157), (anon_sym_late, ACTIONS 67), (anon_sym_this, ACTIONS 159),
     (anon_sym_super, ACTIONS 161), (anon_sym_SLASH_SLASH, ACTIONS 3),
     (anon_sym_SLASH_STAR, ACTIONS 5), (anon_sym_SLASH_SLASH_SLASH, ACTIONS 7),
     (sym__block_comment, ACTIONS 9), (sym__documentation_block_comment, ACTIONS 11)]"

lemma row_ok_7: "table_row_ok 7 ts_parse_table_7"
  by (simp add: row_simps ts_parse_table_7_def)

definition ts_parse_table_8 :: table_row where
  "ts_parse_table_8 = [
     (sym__bool_literal, STATE 989), (sym__numeric_literal, STATE 989),
     (sym__literal, STATE 962), (sym_symbol_literal, STATE 989), (sym_true, STATE 900),
     (sym_false, STATE 900), (sym_string_literal, STATE 989),
     (sym__string_literal_double_quotes, STATE 627),
     (sym__string_literal_single_quotes, STATE 627),
     (sym__string_literal_double_quotes_multiple, STATE 627),
     (sym__string_literal_single_quotes_multiple, STATE 627),
     (sym__raw_string_literal_double_quotes, STATE 627),
     (sym__raw_string_literal_single_quotes, STATE 627),
     (sym__raw_string_literal_double_quotes_multiple, STATE 627),
     (sym__raw_string_literal_single_quotes_multiple, STATE 627), (sym_list_literal, STATE 989),
     (sym_set_or_map_literal, STATE 989), (sym_pair, STATE 2660), (sym__element, STATE 2615),
     (sym_null_literal, STATE 989), (sym_record_literal, STATE 989),
     (sym__record_literal_no_const, STATE 924), (sym__expression, STATE 2503),
     (sym__real_expression, STATE 660), (sym_throw_expression, STATE 908),
     (sym_rethrow_expression, STATE 908), (sym_assignment_expression, STATE 908),
     (sym_assignable_expression, STATE 1940), (sym_lambda_expression, STATE 534),
     (sym_function_expression, STATE 962), (sym_if_null_expression, STATE 1477),
     (sym_conditional_expression, STATE 1477), (sym_logical_or_expression, STATE 1477),
     (sym_logical_and_expression, STATE 1477), (sym_equality_expression, STATE 1477),
     (sym_type_cast_expression, STATE 1477), (sym_type_test_expression, STATE 1477),
     (sym_relational_expression, STATE 1477), (sym_bitwise_or_expression, STATE 1477),
     (sym_bitwise_xor_expression, STATE 1477), (sym_bitwise_and_expression, STATE 1477),
     (sym_shift_expression, STATE 1477), (sym_additive_expression, STATE 1477),
     (sym_multiplicative_expression, STATE 1477), (sym__unary_expression, STATE 1121),
     (sym_unary_expression, STATE 1303), (sym__postfix_expression, STATE 1303),
     (sym_postfix_expression, STATE 1301), (sym_spread_element, STATE 2660),
     (sym_prefix_operator, STATE 431), (sym_negation_operator, STATE 1450),
     (sym__exclamation_operator, STATE 1451), (sym_tilde_operator, STATE 1385),
     (sym_await_expression, STATE 1302), (sym_new_expression, STATE 962),
     (sym_const_object_expression, STATE 962), (sym__primary, STATE 668),
     (sym_parenthesized_expression, STATE 962), (sym_constructor_invocation, STATE 643),
     (sym_constructor_tearoff, STATE 962), (sym_type_arguments, STATE 3200),
     (sym__statement, STATE 537), (sym_local_function_declaration, STATE 533),
     (sym_block, STATE 527), (sym_expression_statement, STATE 527),
     (sym_assert_statement, STATE 527), (sym_assertion, STATE 3380),
     (sym_switch_statement, STATE 527), (sym_switch_expression, STATE 962),
     (sym__parenthesized_pattern, STATE 3182), (sym_list_pattern, STATE 3182),
     (sym_map_pattern, STATE 3182), (sym_record_pattern, STATE 3182),
     (sym_object_pattern, STATE 3182), (sym_pattern_variable_declaration, STATE 3176),
     (sym__outer_pattern, STATE 3410), (sym_pattern_assignment, STATE 908),
     (sym_do_statement, STATE 527), (sym_break_statement, STATE 527),
     (sym_continue_statement, STATE 527), (sym_yield_statement, STATE 527),
     (sym_yield_each_statement, STATE 527), (sym_return_statement, STATE 527),
     (sym_try_statement, STATE 527), (sym__try_head, STATE 464), (sym_if_element, STATE 2660),
     (sym_if_statement, STATE 527), (sym_while_statement, STATE 527),
     (sym_for_statement, STATE 527), (sym_for_element, STATE 2660), (sym_annotation, STATE 1361),
     (sym__metadata, STATE 1059), (sym_type_parameters, STATE 2932),
     (sym_initialized_variable_definition, STATE 3176), (sym__declared_identifier, STATE 2667),
     (sym__final_const_var_or_type, STATE 3411), (sym__type, STATE 2530),
     (sym__type_not_function, STATE 1796), (sym__type_not_void_not_function, STATE 1896),
     (sym_function_type, STATE 1848), (aux_sym__function_type_tails, STATE 1605),
     (sym__function_type_tail, STATE 1704), (sym_record_type, STATE 1805),
     (sym__type_name, STATE 2004), (sym__var_or_type, STATE 2755),
     (sym_inferred_type, STATE 1771), (sym_function_signature, STATE 2368),
     (sym__formal_parameter_part, STATE 2339), (sym_formal_parameter_list, STATE 2020),
     (sym__strict_formal_parameter_list, STATE 2016),
     (sym_local_variable_declaration, STATE 542), (sym__covariant, STATE 1795),
     (sym__function_builtin_identifier, STATE 1463), (sym__get, STATE 2500),
     (sym__set, STATE 2500), (sym__new_builtin, STATE 2079), (sym_final_builtin, STATE 1764),
     (sym__late_builtin, STATE 1915), (sym_this, STATE 962), (sym_super, STATE 1337),
     (sym_comment, STATE 8), (sym_documentation_comment, STATE 8),
     (aux_sym_string_literal_repeat1, STATE 474), (aux_sym__metadata_repeat1, STATE 1308),
     (sym_identifier, ACTIONS 71), (anon_sym_POUND, ACTIONS 73),
     (sym_decimal_integer_literal, ACTIONS 75), (sym_hex_integer_literal, ACTIONS 77),
     (sym_decimal_floating_point_literal, ACTIONS 75), (anon_sym_true, ACTIONS 79),
     (anon_sym_false, ACTIONS 81), (anon_sym_DQUOTE, ACTIONS 83), (anon_sym_SQUOTE, ACTIONS 85),
     (anon_sym_DQUOTE_DQUOTE_DQUOTE, ACTIONS 87), (anon_sym_SQUOTE_SQUOTE_SQUOTE, ACTIONS 89),
     (anon_sym_r_DQUOTE, ACTIONS 91), (anon_sym_r_SQUOTE, ACTIONS 93),
     (anon_sym_r_DQUOTE_DQUOTE_DQUOTE, ACTIONS 95),
     (anon_sym_r_SQUOTE_SQUOTE_SQUOTE, ACTIONS 97), (anon_sym_LBRACE, ACTIONS 99),
     (anon_sym_LBRACK, ACTIONS 103), (anon_sym_null, ACTIONS 105),
     (anon_sym_LPAREN, ACTIONS 107), (anon_sym_throw, ACTIONS 109), (anon_sym_LT, ACTIONS 111),
     (sym_increment_operator, ACTIONS 113), (anon_sym_DOT_DOT_DOT, ACTIONS 167),
     (sym_minus_operator, ACTIONS 117), (anon_sym_BANG, ACTIONS 119),
     (anon_sym_TILDE, ACTIONS 121), (anon_sym_await, ACTIONS 123),
     (anon_sym_switch, ACTIONS 125), (anon_sym_do, ACTIONS 127), (anon_sym_while, ACTIONS 129),
     (anon_sym_continue, ACTIONS 131), (anon_sym_yield, ACTIONS 133),
     (anon_sym_return, ACTIONS 135), (anon_sym_try, ACTIONS 137), (anon_sym_if, ACTIONS 139),
     (anon_sym_for, ACTIONS 141), (anon_sym_AT, ACTIONS 143), (anon_sym_final, ACTIONS 145),
     (sym_void_type, ACTIONS 33), (anon_sym_var, ACTIONS 35), (sym_break_builtin, ACTIONS 147),
     (sym_assert_builtin, ACTIONS 149), (sym_rethrow_builtin, ACTIONS 151),
     (anon_sym_covariant, ACTIONS 153), (anon_sym_Function, ACTIONS 45),
     (anon_sym_get, ACTIONS 47), (anon_sym_set, ACTIONS 61), (anon_sym_new, ACTIONS 155),
     (sym_const_builtin, ACTIONS 157), (anon_sym_late, ACTIONS 67), (anon_sym_this, ACTIONS 159),
     (anon_sym_super, ACTIONS 161), (anon_sym_SLASH_SLASH, ACTIONS 3),
     (anon_sym_SLASH_STAR, ACTIONS 5), (anon_sym_SLASH_SLASH_SLASH, ACTIONS 7),
     (sym__block_comment, ACTIONS 9), (sym__documentation_block_comment, ACTIONS 11)]"

lemma row_ok_8: "table_row_ok 8 ts_parse_table_8"
  by (simp add: row_simps ts_parse_table_8_def)

definition ts_parse_table_9 :: table_row where
  "ts_parse_table_9 = [
     (sym__bool_literal, STATE 989), (sym__numeric_literal, STATE 989),
     (sym__literal, STATE 962), (sym_symbol_literal, STATE 989), (sym_true, STATE 900),
     (sym_false, STATE 900), (sym_string_literal, STATE 989),
     (sym__string_literal_double_quotes, STATE 627),
     (sym__string_literal_single_quotes, STATE 627),
     (sym__string_literal_double_quotes_multiple, STATE 627),
     (sym__string_literal_single_quotes_multiple, STATE 627),
     (sym__raw_string_literal_double_quotes, STATE 627),
     (sym__raw_string_literal_single_quotes, STATE 627),
     (sym__raw_string_literal_double_quotes_multiple, STATE 627),
     (sym__raw_string_literal_single_quotes_multiple, STATE 627), (sym_list_literal, STATE 989),
     (sym_set_or_map_literal, STATE 989), (sym_null_literal, STATE 989),
     (sym_record_literal, STATE 989), (sym__record_literal_no_const, STATE 924),
     (sym__expression, STATE 3203), (sym__real_expression, STATE 660),
     (sym_throw_expression, STATE 908), (sym_rethrow_expression, STATE 908),
     (sym_assignment_expression, STATE 908), (sym_assignable_expression, STATE 1940),
     (sym_lambda_expression, STATE 534), (sym_function_expression, STATE 962),
     (sym_if_null_expression, STATE 1477), (sym_conditional_expression, STATE 1477),
     (sym_logical_or_expression, STATE 1477), (sym_logical_and_expression, STATE 1477),
     (sym_equality_expression, STATE 1477), (sym_type_cast_expression, STATE 1477),
     (sym_type_test_expression, STATE 1477), (sym_relational_expression, STATE 1477),
     (sym_bitwise_or_expression, STATE 1477), (sym_bitwise_xor_expression, STATE 1477),
     (sym_bitwise_and_expression, STATE 1477), (sym_shift_expression, STATE 1477),
     (sym_additive_expression, STATE 1477), (sym_multiplicative_expression, STATE 1477),
     (sym__unary_expression, STATE 1121), (sym_unary_expression, STATE 1303),
     (sym__postfix_expression, STATE 1303), (sym_postfix_expression, STATE 1301),
     (sym_prefix_operator, STATE 431), (sym_negation_operator, STATE 1450),
     (sym__exclamation_operator, STATE 1451), (sym_tilde_operator, STATE 1385),
     (sym_await_expression, STATE 1302), (sym_new_expression, STATE 962),
     (sym_const_object_expression, STATE 962), (sym__primary, STATE 668),
     (sym_parenthesized_expression, STATE 962), (sym_constructor_invocation, STATE 643),
     (sym_constructor_tearoff, STATE 962), (sym_type_arguments, STATE 3200),
     (sym__statement, STATE 556), (sym_local_function_declaration, STATE 533),
     (sym_block, STATE 527), (sym_expression_statement, STATE 527),
     (sym_assert_statement, STATE 527), (sym_assertion, STATE 3380),
     (sym_switch_statement, STATE 527), (sym_switch_expression, STATE 962),
     (sym__parenthesized_pattern, STATE 3182), (sym_list_pattern, STATE 3182),
     (sym_map_pattern, STATE 3182), (sym_record_pattern, STATE 3182),
     (sym_object_pattern, STATE 3182), (sym_pattern_variable_declaration, STATE 3176),
     (sym__outer_pattern, STATE 3410), (sym_pattern_assignment, STATE 908),
     (sym_do_statement, STATE 527), (sym_break_statement, STATE 527),
     (sym_continue_statement, STATE 527), (sym_yield_statement, STATE 527),
     (sym_yield_each_statement, STATE 527), (sym_return_statement, STATE 527),
     (sym_try_statement, STATE 527), (sym__try_head, STATE 464), (sym_if_statement, STATE 527),
     (sym_while_statement, STATE 527), (sym_for_statement, STATE 527),
     (sym_annotation, STATE 1361), (sym__metadata, STATE 1059),
     (sym_type_parameters, STATE 2932), (sym_initialized_variable_definition, STATE 3176),
     (sym__declared_identifier, STATE 2667), (sym__final_const_var_or_type, STATE 3411),
     (sym__type, STATE 2530), (sym__type_not_function, STATE 1796),
     (sym__type_not_void_not_function, STATE 1896), (sym_function_type, STATE 1848),
     (aux_sym__function_type_tails, STATE 1605), (sym__function_type_tail, STATE 1704),
     (sym_record_type, STATE 1805), (sym__type_name, STATE 2004), (sym__var_or_type, STATE 2755),
     (sym_inferred_type, STATE 1771), (sym_function_signature, STATE 2368),
     (sym__formal_parameter_part, STATE 2339), (sym_formal_parameter_list, STATE 2020),
     (sym__strict_formal_parameter_list, STATE 2016),
     (sym_local_variable_declaration, STATE 542), (sym__covariant, STATE 1795),
     (sym__function_builtin_identifier, STATE 1463), (sym__get, STATE 2500),
     (sym__set, STATE 2500), (sym__new_builtin, STATE 2079), (sym_final_builtin, STATE 1764),
     (sym__late_builtin, STATE 1915), (sym_this, STATE 962), (sym_super, STATE 1337),
     (sym_comment, STATE 9), (sym_documentation_comment, STATE 9),
     (aux_sym_string_literal_repeat1, STATE 474), (aux_sym_block_repeat1, STATE 13),
     (aux_sym__metadata_repeat1, STATE 1308), (sym_identifier, ACTIONS 169),
     (anon_sym_POUND, ACTIONS 73), (sym_decimal_integer_literal, ACTIONS 75),
     (sym_hex_integer_literal, ACTIONS 77), (sym_decimal_floating_point_literal, ACTIONS 75),
     (anon_sym_true, ACTIONS 79), (anon_sym_false, ACTIONS 81), (anon_sym_DQUOTE, ACTIONS 83),
     (anon_sym_SQUOTE, ACTIONS 85), (anon_sym_DQUOTE_DQUOTE_DQUOTE, ACTIONS 87),
     (anon_sym_SQUOTE_SQUOTE_SQUOTE, ACTIONS 89), (anon_sym_r_DQUOTE, ACTIONS 91),
     (anon_sym_r_SQUOTE, ACTIONS 93), (anon_sym_r_DQUOTE_DQUOTE_DQUOTE, ACTIONS 95),
     (anon_sym_r_SQUOTE_SQUOTE_SQUOTE, ACTIONS 97), (anon_sym_LBRACE, ACTIONS 172),
     (anon_sym_RBRACE, ACTIONS 174), (anon_sym_LBRACK, ACTIONS 103),
     (anon_sym_null, ACTIONS 105), (anon_sym_LPAREN, ACTIONS 107), (anon_sym_throw, ACTIONS 109),
     (anon_sym_LT, ACTIONS 111), (sym_increment_operator, ACTIONS 113),
     (sym_minus_operator, ACTIONS 117), (anon_sym_BANG, ACTIONS 119),
     (anon_sym_TILDE, ACTIONS 121), (anon_sym_await, ACTIONS 176),
     (anon_sym_switch, ACTIONS 125), (anon_sym_default, ACTIONS 178), (anon_sym_do, ACTIONS 127),
     (anon_sym_while, ACTIONS 129), (anon_sym_continue, ACTIONS 131),
     (anon_sym_yield, ACTIONS 133), (anon_sym_return, ACTIONS 135), (anon_sym_try, ACTIONS 137),
     (anon_sym_if, ACTIONS 180), (anon_sym_case, ACTIONS 178), (anon_sym_for, ACTIONS 182),
     (anon_sym_AT, ACTIONS 143), (anon_sym_final, ACTIONS 145), (sym_void_type, ACTIONS 33),
     (anon_sym_var, ACTIONS 35), (sym_break_builtin, ACTIONS 147),
     (sym_assert_builtin, ACTIONS 149), (sym_rethrow_builtin, ACTIONS 151),
     (anon_sym_covariant, ACTIONS 153), (anon_sym_Function, ACTIONS 45),
     (anon_sym_get, ACTIONS 47), (anon_sym_set, ACTIONS 61), (anon_sym_new, ACTIONS 155),
     (sym_const_builtin, ACTIONS 157), (anon_sym_late, ACTIONS 67), (anon_sym_this, ACTIONS 159),
     (anon_sym_super, ACTIONS 161), (anon_sym_SLASH_SLASH, ACTIONS 3),
     (anon_sym_SLASH_STAR, ACTIONS 5), (anon_sym_SLASH_SLASH_SLASH, ACTIONS 7),
     (sym__block_comment, ACTIONS 9), (sym__documentation_block_comment, ACTIONS 11)]"

lemma row_ok_9: "table_row_ok 9 ts_parse_table_9"
  by (simp add: row_simps ts_parse_table_9_def)

definition ts_parse_table_10 :: table_row where
  "ts_parse_table_10 = [
     (sym__bool_literal, STATE 989), (sym__numeric_literal, STATE 989),
     (sym__literal, STATE 962), (sym_symbol_literal, STATE 989), (sym_true, STATE 900),
     (sym_false, STATE 900), (sym_string_literal, STATE 989),
     (sym__string_literal_double_quotes, STATE 627),
     (sym__string_literal_single_quotes, STATE 627),
     (sym__string_literal_double_quotes_multiple, STATE 627),
     (sym__string_literal_single_quotes_multiple, STATE 627),
     (sym__raw_string_literal_double_quotes, STATE 627),
     (sym__raw_string_literal_single_quotes, STATE 627),
     (sym__raw_string_literal_double_quotes_multiple, STATE 627),
     (sym__raw_string_literal_single_quotes_multiple, STATE 627), (sym_list_literal, STATE 989),
     (sym_set_or_map_literal, STATE 989), (sym_null_literal, STATE 989),
     (sym_record_literal, STATE 989), (sym__record_literal_no_const, STATE 924),
     (sym__expression, STATE 3203), (sym__real_expression, STATE 660),
     (sym_throw_expression, STATE 908), (sym_rethrow_expression, STATE 908),
     (sym_assignment_expression, STATE 908), (sym_assignable_expression, STATE 1940),
     (sym_lambda_expression, STATE 534), (sym_function_expression, STATE 962),
     (sym_if_null_expression, STATE 1477), (sym_conditional_expression, STATE 1477),
     (sym_logical_or_expression, STATE 1477), (sym_logical_and_expression, STATE 1477),
     (sym_equality_expression, STATE 1477), (sym_type_cast_expression, STATE 1477),
     (sym_type_test_expression, STATE 1477), (sym_relational_expression, STATE 1477),
     (sym_bitwise_or_expression, STATE 1477), (sym_bitwise_xor_expression, STATE 1477),
     (sym_bitwise_and_expression, STATE 1477), (sym_shift_expression, STATE 1477),
     (sym_additive_expression, STATE 1477), (sym_multiplicative_expression, STATE 1477),
     (sym__unary_expression, STATE 1121), (sym_unary_expression, STATE 1303),
     (sym__postfix_expression, STATE 1303), (sym_postfix_expression, STATE 1301),
     (sym_prefix_operator, STATE 431), (sym_negation_operator, STATE 1450),
     (sym__exclamation_operator, STATE 1451), (sym_tilde_operator, STATE 1385),
     (sym_await_expression, STATE 1302), (sym_new_expression, STATE 962),
     (sym_const_object_expression, STATE 962), (sym__primary, STATE 668),
     (sym_parenthesized_expression, STATE 962), (sym_constructor_invocation, STATE 643),
     (sym_constructor_tearoff, STATE 962), (sym_type_arguments, STATE 3200),
     (sym__statement, STATE 556), (sym_local_function_declaration, STATE 533),
     (sym_block, STATE 527), (sym_expression_statement, STATE 527),
     (sym_assert_statement, STATE 527), (sym_assertion, STATE 3380),
     (sym_switch_statement, STATE 527), (sym_switch_expression, STATE 962),
     (sym__parenthesized_pattern, STATE 3182), (sym_list_pattern, STATE 3182),
     (sym_map_pattern, STATE 3182), (sym_record_pattern, STATE 3182),
     (sym_object_pattern, STATE 3182), (sym_pattern_variable_declaration, STATE 3176),
     (sym__outer_pattern, STATE 3410), (sym_pattern_assignment, STATE 908),
     (sym_do_statement, STATE 527), (sym_break_statement, STATE 527),
     (sym_continue_statement, STATE 527), (sym_yield_statement, STATE 527),
     (sym_yield_each_statement, STATE 527), (sym_return_statement, STATE 527),
     (sym_try_statement, STATE 527), (sym__try_head, STATE 464), (sym_if_statement, STATE 527),
     (sym_while_statement, STATE 527), (sym_for_statement, STATE 527),
     (sym_annotation, STATE 1361), (sym__metadata, STATE 1059),
     (sym_type_parameters, STATE 2932), (sym_initialized_variable_definition, STATE 3176),
     (sym__declared_identifier, STATE 2667), (sym__final_const_var_or_type, STATE 3411),
     (sym__type, STATE 2530), (sym__type_not_function, STATE 1796),
     (sym__type_not_void_not_function, STATE 1896), (sym_function_type, STATE 1848),
     (aux_sym__function_type_tails, STATE 1605), (sym__function_type_tail, STATE 1704),
     (sym_record_type, STATE 1805), (sym__type_name, STATE 2004), (sym__var_or_type, STATE 2755),
     (sym_inferred_type, STATE 1771), (sym_function_signature, STATE 2368),
     (sym__formal_parameter_part, STATE 2339), (sym_formal_parameter_list, STATE 2020),
     (sym__strict_formal_parameter_list, STATE 2016),
     (sym_local_variable_declaration, STATE 542), (sym__covariant, STATE 1795),
     (sym__function_builtin_identifier, STATE 1463), (sym__get, STATE 2500),
     (sym__set, STATE 2500), (sym__new_builtin, STATE 2079), (sym_final_builtin, STATE 1764),
     (sym__late_builtin, STATE 1915), (sym_this, STATE 962), (sym_super, STATE 1337),
     (sym_comment, STATE 10), (sym_documentation_comment, STATE 10),
     (aux_sym_string_literal_repeat1, STATE 474), (aux_sym_block_repeat1, STATE 12),
     (aux_sym__metadata_repeat1, STATE 1308), (sym_identifier, ACTIONS 184),
     (anon_sym_POUND, ACTIONS 73), (sym_decimal_integer_literal, ACTIONS 75),
     (sym_hex_integer_literal, ACTIONS 77), (sym_decimal_floating_point_literal, ACTIONS 75),
     (anon_sym_true, ACTIONS 79), (anon_sym_false, ACTIONS 81), (anon_sym_DQUOTE, ACTIONS 83),
     (anon_sym_SQUOTE, ACTIONS 85), (anon_sym_DQUOTE_DQUOTE_DQUOTE, ACTIONS 87),
     (anon_sym_SQUOTE_SQUOTE_SQUOTE, ACTIONS 89), (anon_sym_r_DQUOTE, ACTIONS 91),
     (anon_sym_r_SQUOTE, ACTIONS 93), (anon_sym_r_DQUOTE_DQUOTE_DQUOTE, ACTIONS 95),
     (anon_sym_r_SQUOTE_SQUOTE_SQUOTE, ACTIONS 97), (anon_sym_LBRACE, ACTIONS 172),
     (anon_sym_RBRACE, ACTIONS 187), (anon_sym_LBRACK, ACTIONS 103),
     (anon_sym_null, ACTIONS 105), (anon_sym_LPAREN, ACTIONS 107), (anon_sym_throw, ACTIONS 109),
     (anon_sym_LT, ACTIONS 111), (sym_increment_operator, ACTIONS 113),
     (sym_minus_operator, ACTIONS 117), (anon_sym_BANG, ACTIONS 119),
     (anon_sym_TILDE, ACTIONS 121), (anon_sym_await, ACTIONS 176),
     (anon_sym_switch, ACTIONS 125), (anon_sym_default, ACTIONS 189), (anon_sym_do, ACTIONS 127),
     (anon_sym_while, ACTIONS 129), (anon_sym_continue, ACTIONS 131),
     (anon_sym_yield, ACTIONS 133), (anon_sym_return, ACTIONS 135), (anon_sym_try, ACTIONS 137),
     (anon_sym_if, ACTIONS 180), (anon_sym_case, ACTIONS 189), (anon_sym_for, ACTIONS 182),
     (anon_sym_AT, ACTIONS 143), (anon_sym_final, ACTIONS 145), (sym_void_type, ACTIONS 33),
     (anon_sym_var, ACTIONS 35), (sym_break_builtin, ACTIONS 147),
     (sym_assert_builtin, ACTIONS 149), (sym_rethrow_builtin, ACTIONS 151),
     (anon_sym_covariant, ACTIONS 153), (anon_sym_Function, ACTIONS 45),
     (anon_sym_get, ACTIONS 47), (anon_sym_set, ACTIONS 61), (anon_sym_new, ACTIONS 155),
     (sym_const_builtin, ACTIONS 157), (anon_sym_late, ACTIONS 67), (anon_sym_this, ACTIONS 159),
     (anon_sym_super, ACTIONS 161), (anon_sym_SLASH_SLASH, ACTIONS 3),
     (anon_sym_SLASH_STAR, ACTIONS 5), (anon_sym_SLASH_SLASH_SLASH, ACTIONS 7),
     (sym__block_comment, ACTIONS 9), (sym__documentation_block_comment, ACTIONS 11)]"

lemma row_ok_10: "table_row_ok 10 ts_parse_table_10"
  by (simp add: row_simps ts_parse_table_10_def)

definition ts_parse_table_11 :: table_row where
  "ts_parse_table_11 = [
     (sym__bool_literal, STATE 989), (sym__numeric_literal, STATE 989),
     (sym__literal, STATE 962), (sym_symbol_literal, STATE 989), (sym_true, STATE 900),
     (sym_false, STATE 900), (sym_string_literal, STATE 989),
     (sym__string_literal_double_quotes, STATE 627),
     (sym__string_literal_single_quotes, STATE 627),
     (sym__string_literal_double_quotes_multiple, STATE 627),
     (sym__string_literal_single_quotes_multiple, STATE 627),
     (sym__raw_string_literal_double_quotes, STATE 627),
     (sym__raw_string_literal_single_quotes, STATE 627),
     (sym__raw_string_literal_double_quotes_multiple, STATE 627),
     (sym__raw_string_literal_single_quotes_multiple, STATE 627), (sym_list_literal, STATE 989),
     (sym_set_or_map_literal, STATE 989), (sym_null_literal, STATE 989),
     (sym_record_literal, STATE 989), (sym__record_literal_no_const, STATE 924),
     (sym__expression, STATE 3203), (sym__real_expression, STATE 660),
     (sym_throw_expression, STATE 908), (sym_rethrow_expression, STATE 908),
     (sym_assignment_expression, STATE 908), (sym_assignable_expression, STATE 1940),
     (sym_lambda_expression, STATE 534), (sym_function_expression, STATE 962),
     (sym_if_null_expression, STATE 1477), (sym_conditional_expression, STATE 1477),
     (sym_logical_or_expression, STATE 1477), (sym_logical_and_expression, STATE 1477),
     (sym_equality_expression, STATE 1477), (sym_type_cast_expression, STATE 1477),
     (sym_type_test_expression, STATE 1477), (sym_relational_expression, STATE 1477),
     (sym_bitwise_or_expression, STATE 1477), (sym_bitwise_xor_expression, STATE 1477),
     (sym_bitwise_and_expression, STATE 1477), (sym_shift_expression, STATE 1477),
     (sym_additive_expression, STATE 1477), (sym_multiplicative_expression, STATE 1477),
     (sym__unary_expression, STATE 1121), (sym_unary_expression, STATE 1303),
     (sym__postfix_expression, STATE 1303), (sym_postfix_expression, STATE 1301),
     (sym_prefix_operator, STATE 431), (sym_negation_operator, STATE 1450),
     (sym__exclamation_operator, STATE 1451), (sym_tilde_operator, STATE 1385),
     (sym_await_expression, STATE 1302), (sym_new_expression, STATE 962),
     (sym_const_object_expression, STATE 962), (sym__primary, STATE 668),
     (sym_parenthesized_expression, STATE 962), (sym_constructor_invocation, STATE 643),
     (sym_constructor_tearoff, STATE 962), (sym_type_arguments, STATE 3200),
     (sym__statement, STATE 556), (sym_local_function_declaration, STATE 533),
     (sym_block, STATE 527), (sym_expression_statement, STATE 527),
     (sym_assert_statement, STATE 527), (sym_assertion, STATE 3380),
     (sym_switch_statement, STATE 527), (sym_switch_expression, STATE 962),
     (sym__parenthesized_pattern, STATE 3182), (sym_list_pattern, STATE 3182),
     (sym_map_pattern, STATE 3182), (sym_record_pattern, STATE 3182),
     (sym_object_pattern, STATE 3182), (sym_pattern_variable_declaration, STATE 3176),
     (sym__outer_pattern, STATE 3410), (sym_pattern_assignment, STATE 908),
     (sym_do_statement, STATE 527), (sym_break_statement, STATE 527),
     (sym_continue_statement, STATE 527), (sym_yield_statement, STATE 527),
     (sym_yield_each_statement, STATE 527), (sym_return_statement, STATE 527),
     (sym_try_statement, STATE 527), (sym__try_head, STATE 464), (sym_if_statement, STATE 527),
     (sym_while_statement, STATE 527), (sym_for_statement, STATE 527),
     (sym_annotation, STATE 1361), (sym__metadata, STATE 1059),
     (sym_type_parameters, STATE 2932), (sym_initialized_variable_definition, STATE 3176),
     (sym__declared_identifier, STATE 2667), (sym__final_const_var_or_type, STATE 3411),
     (sym__type, STATE 2530), (sym__type_not_function, STATE 1796),
     (sym__type_not_void_not_function, STATE 1896), (sym_function_type, STATE 1848),
     (aux_sym__function_type_tails, STATE 1605), (sym__function_type_tail, STATE 1704),
     (sym_record_type, STATE 1805), (sym__type_name, STATE 2004), (sym__var_or_type, STATE 2755),
     (sym_inferred_type, STATE 1771), (sym_function_signature, STATE 2368),
     (sym__formal_parameter_part, STATE 2339), (sym_formal_parameter_list, STATE 2020),
     (sym__strict_formal_parameter_list, STATE 2016),
     (sym_local_variable_declaration, STATE 542), (sym__covariant, STATE 1795),
     (sym__function_builtin_identifier, STATE 1463), (sym__get, STATE 2500),
     (sym__set, STATE 2500), (sym__new_builtin, STATE 2079), (sym_final_builtin, STATE 1764),
     (sym__late_builtin, STATE 1915), (sym_this, STATE 962), (sym_super, STATE 1337),
     (sym_comment, STATE 11), (sym_documentation_comment, STATE 11),
     (aux_sym_string_literal_repeat1, STATE 474), (aux_sym_block_repeat1, STATE 9),
     (aux_sym__metadata_repeat1, STATE 1308), (sym_identifier, ACTIONS 191),
     (anon_sym_POUND, ACTIONS 73), (sym_decimal_integer_literal, ACTIONS 75),
     (sym_hex_integer_literal, ACTIONS 77), (sym_decimal_floating_point_literal, ACTIONS 75),
     (anon_sym_true, ACTIONS 79), (anon_sym_false, ACTIONS 81), (anon_sym_DQUOTE, ACTIONS 83),
     (anon_sym_SQUOTE, ACTIONS 85), (anon_sym_DQUOTE_DQUOTE_DQUOTE, ACTIONS 87),
     (anon_sym_SQUOTE_SQUOTE_SQUOTE, ACTIONS 89), (anon_sym_r_DQUOTE, ACTIONS 91),
     (anon_sym_r_SQUOTE, ACTIONS 93), (anon_sym_r_DQUOTE_DQUOTE_DQUOTE, ACTIONS 95),
     (anon_sym_r_SQUOTE_SQUOTE_SQUOTE, ACTIONS 97), (anon_sym_LBRACE, ACTIONS 172),
     (anon_sym_RBRACE, ACTIONS 194), (anon_sym_LBRACK, ACTIONS 103),
     (anon_sym_null, ACTIONS 105), (anon_sym_LPAREN, ACTIONS 107), (anon_sym_throw, ACTIONS 109),
     (anon_sym_LT, ACTIONS 111), (sym_increment_operator, ACTIONS 113),
     (sym_minus_operator, ACTIONS 117), (anon_sym_BANG, ACTIONS 119),
     (anon_sym_TILDE, ACTIONS 121), (anon_sym_await, ACTIONS 176),
     (anon_sym_switch, ACTIONS 125), (anon_sym_default, ACTIONS 196), (anon_sym_do, ACTIONS 127),
     (anon_sym_while, ACTIONS 129), (anon_sym_continue, ACTIONS 131),
     (anon_sym_yield, ACTIONS 133), (anon_sym_return, ACTIONS 135), (anon_sym_try, ACTIONS 137),
     (anon_sym_if, ACTIONS 180), (anon_sym_case, ACTIONS 196), (anon_sym_for, ACTIONS 182),
     (anon_sym_AT, ACTIONS 143), (anon_sym_final, ACTIONS 145), (sym_void_type, ACTIONS 33),
     (anon_sym_var, ACTIONS 35), (sym_break_builtin, ACTIONS 147),
     (sym_assert_builtin, ACTIONS 149), (sym_rethrow_builtin, ACTIONS 151),
     (anon_sym_covariant, ACTIONS 153), (anon_sym_Function, ACTIONS 45),
     (anon_sym_get, ACTIONS 47), (anon_sym_set, ACTIONS 61), (anon_sym_new, ACTIONS 155),
     (sym_const_builtin, ACTIONS 157), (anon_sym_late, ACTIONS 67), (anon_sym_this, ACTIONS 159),
     (anon_sym_super, ACTIONS 161), (anon_sym_SLASH_SLASH, ACTIONS 3),
     (anon_sym_SLASH_STAR, ACTIONS 5), (anon_sym_SLASH_SLASH_SLASH, ACTIONS 7),
     (sym__block_comment, ACTIONS 9), (sym__documentation_block_comment, ACTIONS 11)]"

lemma row_ok_11: "table_row_ok 11 ts_parse_table_11"
  by (simp add: row_simps ts_parse_table_11_def)

definition ts_parse_table_12 :: table_row where
  "ts_parse_table_12 = [
     (sym__bool_literal, STATE 989), (sym__numeric_literal, STATE 989),
     (sym__literal, STATE 962), (sym_symbol_literal, STATE 989), (sym_true, STATE 900),
     (sym_false, STATE 900), (sym_string_literal, STATE 989),
     (sym__string_literal_double_quotes, STATE 627),
     (sym__string_literal_single_quotes, STATE 627),
     (sym__string_literal_double_quotes_multiple, STATE 627),
     (sym__string_literal_single_quotes_multiple, STATE 627),
     (sym__raw_string_literal_double_quotes, STATE 627),
     (sym__raw_string_literal_single_quotes, STATE 627),
     (sym__raw_string_literal_double_quotes_multiple, STATE 627),
     (sym__raw_string_literal_single_quotes_multiple, STATE 627), (sym_list_literal, STATE 989),
     (sym_set_or_map_literal, STATE 989), (sym_null_literal, STATE 989),
     (sym_record_literal, STATE 989), (sym__record_literal_no_const, STATE 924),
     (sym__expression, STATE 3203), (sym__real_expression, STATE 660),
     (sym_throw_expression, STATE 908), (sym_rethrow_expression, STATE 908),
     (sym_assignment_expression, STATE 908), (sym_assignable_expression, STATE 1940),
     (sym_lambda_expression, STATE 534), (sym_function_expression, STATE 962),
     (sym_if_null_expression, STATE 1477), (sym_conditional_expression, STATE 1477),
     (sym_logical_or_expression, STATE 1477), (sym_logical_and_expression, STATE 1477),
     (sym_equality_expression, STATE 1477), (sym_type_cast_expression, STATE 1477),
     (sym_type_test_expression, STATE 1477), (sym_relational_expression, STATE 1477),
     (sym_bitwise_or_expression, STATE 1477), (sym_bitwise_xor_expression, STATE 1477),
     (sym_bitwise_and_expression, STATE 1477), (sym_shift_expression, STATE 1477),
     (sym_additive_expression, STATE 1477), (sym_multiplicative_expression, STATE 1477),
     (sym__unary_expression, STATE 1121), (sym_unary_expression, STATE 1303),
     (sym__postfix_expression, STATE 1303), (sym_postfix_expression, STATE 1301),
     (sym_prefix_operator, STATE 431), (sym_negation_operator, STATE 1450),
     (sym__exclamation_operator, STATE 1451), (sym_tilde_operator, STATE 1385),
     (sym_await_expression, STATE 1302), (sym_new_expression, STATE 962),
     (sym_const_object_expression, STATE 962), (sym__primary, STATE 668),
     (sym_parenthesized_expression, STATE 962), (sym_constructor_invocation, STATE 643),
     (sym_constructor_tearoff, STATE 962), (sym_type_arguments, STATE 3200),
     (sym__statement, STATE 556), (sym_local_function_declaration, STATE 533),
     (sym_block, STATE 527), (sym_expression_statement, STATE 527),
     (sym_assert_statement, STATE 527), (sym_assertion, STATE 3380),
     (sym_switch_statement, STATE 527), (sym_switch_expression, STATE 962),
     (sym__parenthesized_pattern, STATE 3182), (sym_list_pattern, STATE 3182),
     (sym_map_pattern, STATE 3182), (sym_record_pattern, STATE 3182),
     (sym_object_pattern, STATE 3182), (sym_pattern_variable_declaration, STATE 3176),
     (sym__outer_pattern, STATE 3410), (sym_pattern_assignment, STATE 908),
     (sym_do_statement, STATE 527), (sym_break_statement, STATE 527),
     (sym_continue_statement, STATE 527), (sym_yield_statement, STATE 527),
     (sym_yield_each_statement, STATE 527), (sym_return_statement, STATE 527),
     (sym_try_statement, STATE 527), (sym__try_head, STATE 464), (sym_if_statement, STATE 527),
     (sym_while_statement, STATE 527), (sym_for_statement, STATE 527),
     (sym_annotation, STATE 1361), (sym__metadata, STATE 1059),
     (sym_type_parameters, STATE 2932), (sym_initialized_variable_definition, STATE 3176),
     (sym__declared_identifier, STATE 2667), (sym__final_const_var_or_type, STATE 3411),
     (sym__type, STATE 2530), (sym__type_not_function, STATE 1796),
     (sym__type_not_void_not_function, STATE 1896), (sym_function_type, STATE 1848),
     (aux_sym__function_type_tails, STATE 1605), (sym__function_type_tail, STATE 1704),
     (sym_record_type, STATE 1805), (sym__type_name, STATE 2004), (sym__var_or_type, STATE 2755),
     (sym_inferred_type, STATE 1771), (sym_function_signature, STATE 2368),
     (sym__formal_parameter_part, STATE 2339), (sym_formal_parameter_list, STATE 2020),
     (sym__strict_formal_parameter_list, STATE 2016),
     (sym_local_variable_declaration, STATE 542), (sym__covariant, STATE 1795),
     (sym__function_builtin_identifier, STATE 1463), (sym__get, STATE 2500),
     (sym__set, STATE 2500), (sym__new_builtin, STATE 2079), (sym_final_builtin, STATE 1764),
     (sym__late_builtin, STATE 1915), (sym_this, STATE 962), (sym_super, STATE 1337),
     (sym_comment, STATE 12), (sym_documentation_comment, STATE 12),
     (aux_sym_string_literal_repeat1, STATE 474), (aux_sym_block_repeat1, STATE 13),
     (aux_sym__metadata_repeat1, STATE 1308), (sym_identifier, ACTIONS 191),
     (anon_sym_POUND, ACTIONS 73), (sym_decimal_integer_literal, ACTIONS 75),
     (sym_hex_integer_literal, ACTIONS 77), (sym_decimal_floating_point_literal, ACTIONS 75),
     (anon_sym_true, ACTIONS 79), (anon_sym_false, ACTIONS 81), (anon_sym_DQUOTE, ACTIONS 83),
     (anon_sym_SQUOTE, ACTIONS 85), (anon_sym_DQUOTE_DQUOTE_DQUOTE, ACTIONS 87),
     (anon_sym_SQUOTE_SQUOTE_SQUOTE, ACTIONS 89), (anon_sym_r_DQUOTE, ACTIONS 91),
     (anon_sym_r_SQUOTE, ACTIONS 93), (anon_sym_r_DQUOTE_DQUOTE_DQUOTE, ACTIONS 95),
     (anon_sym_r_SQUOTE_SQUOTE_SQUOTE, ACTIONS 97), (anon_sym_LBRACE, ACTIONS 172),
     (anon_sym_RBRACE, ACTIONS 194), (anon_sym_LBRACK, ACTIONS 103),
     (anon_sym_null, ACTIONS 105), (anon_sym_LPAREN, ACTIONS 107), (anon_sym_throw, ACTIONS 109),
     (anon_sym_LT, ACTIONS 111), (sym_increment_operator, ACTIONS 113),
     (sym_minus_operator, ACTIONS 117), (anon_sym_BANG, ACTIONS 119),
     (anon_sym_TILDE, ACTIONS 121), (anon_sym_await, ACTIONS 176),
     (anon_sym_switch, ACTIONS 125), (anon_sym_default, ACTIONS 196), (anon_sym_do, ACTIONS 127),
     (anon_sym_while, ACTIONS 129), (anon_sym_continue, ACTIONS 131),
     (anon_sym_yield, ACTIONS 133), (anon_sym_return, ACTIONS 135), (anon_sym_try, ACTIONS 137),
     (anon_sym_if, ACTIONS 180), (anon_sym_case, ACTIONS 196), (anon_sym_for, ACTIONS 182),
     (anon_sym_AT, ACTIONS 143), (anon_sym_final, ACTIONS 145), (sym_void_type, ACTIONS 33),
     (anon_sym_var, ACTIONS 35), (sym_break_builtin, ACTIONS 147),
     (sym_assert_builtin, ACTIONS 149), (sym_rethrow_builtin, ACTIONS 151),
     (anon_sym_covariant, ACTIONS 153), (anon_sym_Function, ACTIONS 45),
     (anon_sym_get, ACTIONS 47), (anon_sym_set, ACTIONS 61), (anon_sym_new, ACTIONS 155),
     (sym_const_builtin, ACTIONS 157), (anon_sym_late, ACTIONS 67), (anon_sym_this, ACTIONS 159),
     (anon_sym_super, ACTIONS 161), (anon_sym_SLASH_SLASH, ACTIONS 3),
     (anon_sym_SLASH_STAR, ACTIONS 5), (anon_sym_SLASH_SLASH_SLASH, ACTIONS 7),
     (sym__block_comment, ACTIONS 9), (sym__documentation_block_comment, ACTIONS 11)]"

lemma row_ok_12: "table_row_ok 12 ts_parse_table_12"
  by (simp add: row_simps ts_parse_table_12_def)

definition ts_parse_table_13 :: table_row where
  "ts_parse_table_13 = [
     (sym__bool_literal, STATE 989), (sym__numeric_literal, STATE 989),
     (sym__literal, STATE 962), (sym_symbol_literal, STATE 989), (sym_true, STATE 900),
     (sym_false, STATE 900), (sym_string_literal, STATE 989),
     (sym__string_literal_double_quotes, STATE 627),
     (sym__string_literal_single_quotes, STATE 627),
     (sym__string_literal_double_quotes_multiple, STATE 627),
     (sym__string_literal_single_quotes_multiple, STATE 627),
     (sym__raw_string_literal_double_quotes, STATE 627),
     (sym__raw_string_literal_single_quotes, STATE 627),
     (sym__raw_string_literal_double_quotes_multiple, STATE 627),
     (sym__raw_string_literal_single_quotes_multiple, STATE 627), (sym_list_literal, STATE 989),
     (sym_set_or_map_literal, STATE 989), (sym_null_literal, STATE 989),
     (sym_record_literal, STATE 989), (sym__record_literal_no_const, STATE 924),
     (sym__expression, STATE 3203), (sym__real_expression, STATE 660),
     (sym_throw_expression, STATE 908), (sym_rethrow_expression, STATE 908),
     (sym_assignment_expression, STATE 908), (sym_assignable_expression, STATE 1940),
     (sym_lambda_expression, STATE 534), (sym_function_expression, STATE 962),
     (sym_if_null_expression, STATE 1477), (sym_conditional_expression, STATE 1477),
     (sym_logical_or_expression, STATE 1477), (sym_logical_and_expression, STATE 1477),
     (sym_equality_expression, STATE 1477), (sym_type_cast_expression, STATE 1477),
     (sym_type_test_expression, STATE 1477), (sym_relational_expression, STATE 1477),
     (sym_bitwise_or_expression, STATE 1477), (sym_bitwise_xor_expression, STATE 1477),
     (sym_bitwise_and_expression, STATE 1477), (sym_shift_expression, STATE 1477),
     (sym_additive_expression, STATE 1477), (sym_multiplicative_expression, STATE 1477),
     (sym__unary_expression, STATE 1121), (sym_unary_expression, STATE 1303),
     (sym__postfix_expression, STATE 1303), (sym_postfix_expression, STATE 1301),
     (sym_prefix_operator, STATE 431), (sym_negation_operator, STATE 1450),
     (sym__exclamation_operator, STATE 1451), (sym_tilde_operator, STATE 1385),
     (sym_await_expression, STATE 1302), (sym_new_expression, STATE 962),
     (sym_const_object_expression, STATE 962), (sym__primary, STATE 668),
     (sym_parenthesized_expression, STATE 962), (sym_constructor_invocation, STATE 643),
     (sym_constructor_tearoff, STATE 962), (sym_type_arguments, STATE 3200),
     (sym__statement, STATE 556), (sym_local_function_declaration, STATE 533),
     (sym_block, STATE 527), (sym_expression_statement, STATE 527),
     (sym_assert_statement, STATE 527), (sym_assertion, STATE 3380),
     (sym_switch_statement, STATE 527), (sym_switch_expression, STATE 962),
     (sym__parenthesized_pattern, STATE 3182), (sym_list_pattern, STATE 3182),
     (sym_map_pattern, STATE 3182), (sym_record_pattern, STATE 3182),
     (sym_object_pattern, STATE 3182), (sym_pattern_variable_declaration, STATE 3176),
     (sym__outer_pattern, STATE 3410), (sym_pattern_assignment, STATE 908),
     (sym_do_statement, STATE 527), (sym_break_statement, STATE 527),
     (sym_continue_statement, STATE 527), (sym_yield_statement, STATE 527),
     (sym_yield_each_statement, STATE 527), (sym_return_statement, STATE 527),
     (sym_try_statement, STATE 527), (sym__try_head, STATE 464), (sym_if_statement, STATE 527),
     (sym_while_statement, STATE 527), (sym_for_statement, STATE 527),
     (sym_annotation, STATE 1361), (sym__metadata, STATE 1059),
     (sym_type_parameters, STATE 2932), (sym_initialized_variable_definition, STATE 3176),
     (sym__declared_identifier, STATE 2667), (sym__final_const_var_or_type, STATE 3411),
     (sym__type, STATE 2530), (sym__type_not_function, STATE 1796),
     (sym__type_not_void_not_function, STATE 1896), (sym_function_type, STATE 1848),
     (aux_sym__function_type_tails, STATE 1605), (sym__function_type_tail, STATE 1704),
     (sym_record_type, STATE 1805), (sym__type_name, STATE 2004), (sym__var_or_type, STATE 2755),
     (sym_inferred_type, STATE 1771), (sym_function_signature, STATE 2368),
     (sym__formal_parameter_part, STATE 2339), (sym_formal_parameter_list, STATE 2020),
     (sym__strict_formal_parameter_list, STATE 2016),
     (sym_local_variable_declaration, STATE 542), (sym__covariant, STATE 1795),
     (sym__function_builtin_identifier, STATE 1463), (sym__get, STATE 2500),
     (sym__set, STATE 2500), (sym__new_builtin, STATE 2079), (sym_final_builtin, STATE 1764),
     (sym__late_builtin, STATE 1915), (sym_this, STATE 962), (sym_super, STATE 1337),
     (sym_comment, STATE 13), (sym_documentation_comment, STATE 13),
     (aux_sym_string_literal_repeat1, STATE 474), (aux_sym_block_repeat1, STATE 13),
     (aux_sym__metadata_repeat1, STATE 1308), (sym_identifier, ACTIONS 198),
     (anon_sym_POUND, ACTIONS 201), (sym_decimal_integer_literal, ACTIONS 204),
     (sym_hex_integer_literal, ACTIONS 207), (sym_decimal_floating_point_literal, ACTIONS 204),
     (anon_sym_true, ACTIONS 210), (anon_sym_false, ACTIONS 213), (anon_sym_DQUOTE, ACTIONS 216),
     (anon_sym_SQUOTE, ACTIONS 219), (anon_sym_DQUOTE_DQUOTE_DQUOTE, ACTIONS 222),
     (anon_sym_SQUOTE_SQUOTE_SQUOTE, ACTIONS 225), (anon_sym_r_DQUOTE, ACTIONS 228),
     (anon_sym_r_SQUOTE, ACTIONS 231), (anon_sym_r_DQUOTE_DQUOTE_DQUOTE, ACTIONS 234),
     (anon_sym_r_SQUOTE_SQUOTE_SQUOTE, ACTIONS 237), (anon_sym_LBRACE, ACTIONS 240),
     (anon_sym_RBRACE, ACTIONS 243), (anon_sym_LBRACK, ACTIONS 245),
     (anon_sym_null, ACTIONS 248), (anon_sym_LPAREN, ACTIONS 251), (anon_sym_throw, ACTIONS 254),
     (anon_sym_LT, ACTIONS 257), (sym_increment_operator, ACTIONS 260),
     (sym_minus_operator, ACTIONS 263), (anon_sym_BANG, ACTIONS 266),
     (anon_sym_TILDE, ACTIONS 269), (anon_sym_await, ACTIONS 272),
     (anon_sym_switch, ACTIONS 275), (anon_sym_default, ACTIONS 278), (anon_sym_do, ACTIONS 280),
     (anon_sym_while, ACTIONS 283), (anon_sym_continue, ACTIONS 286),
     (anon_sym_yield, ACTIONS 289), (anon_sym_return, ACTIONS 292), (anon_sym_try, ACTIONS 295),
     (anon_sym_if, ACTIONS 298), (anon_sym_case, ACTIONS 278), (anon_sym_for, ACTIONS 301),
     (anon_sym_AT, ACTIONS 304), (anon_sym_final, ACTIONS 307), (sym_void_type, ACTIONS 310),
     (anon_sym_var, ACTIONS 313), (sym_break_builtin, ACTIONS 316),
     (sym_assert_builtin, ACTIONS 319), (sym_rethrow_builtin, ACTIONS 322),
     (anon_sym_covariant, ACTIONS 325), (anon_sym_Function, ACTIONS 328),
     (anon_sym_get, ACTIONS 331), (anon_sym_set, ACTIONS 334), (anon_sym_new, ACTIONS 337),
     (sym_const_builtin, ACTIONS 340), (anon_sym_late, ACTIONS 343),
     (anon_sym_this, ACTIONS 346), (anon_sym_super, ACTIONS 349),
     (anon_sym_SLASH_SLASH, ACTIONS 3), (anon_sym_SLASH_STAR, ACTIONS 5),
     (anon_sym_SLASH_SLASH_SLASH, ACTIONS 7), (sym__block_comment, ACTIONS 9),
     (sym__documentation_block_comment, ACTIONS 11)]"

lemma row_ok_13: "table_row_ok 13 ts_parse_table_13"
  by (simp add: row_simps ts_parse_table_13_def)

definition ts_parse_table_14 :: table_row where
  "ts_parse_table_14 = [
     (sym__bool_literal, STATE 989), (sym__numeric_literal, STATE 989),
     (sym__literal, STATE 962), (sym_symbol_literal, STATE 989), (sym_true, STATE 900),
     (sym_false, STATE 900), (sym_string_literal, STATE 989),
     (sym__string_literal_double_quotes, STATE 627),
     (sym__string_literal_single_quotes, STATE 627),
     (sym__string_literal_double_quotes_multiple, STATE 627),
     (sym__string_literal_single_quotes_multiple, STATE 627),
     (sym__raw_string_literal_double_quotes, STATE 627),
     (sym__raw_string_literal_single_quotes, STATE 627),
     (sym__raw_string_literal_double_quotes_multiple, STATE 627),
     (sym__raw_string_literal_single_quotes_multiple, STATE 627), (sym_list_literal, STATE 989),
     (sym_set_or_map_literal, STATE 989), (sym_null_literal, STATE 989),
     (sym_record_literal, STATE 989), (sym__record_literal_no_const, STATE 924),
     (sym__expression, STATE 3203), (sym__real_expression, STATE 660),
     (sym_throw_expression, STATE 908), (sym_rethrow_expression, STATE 908),
     (sym_assignment_expression, STATE 908), (sym_assignable_expression, STATE 1940),
     (sym_lambda_expression, STATE 534), (sym_function_expression, STATE 962),
     (sym_if_null_expression, STATE 1477), (sym_conditional_expression, STATE 1477),
     (sym_logical_or_expression, STATE 1477), (sym_logical_and_expression, STATE 1477),
     (sym_equality_expression, STATE 1477), (sym_type_cast_expression, STATE 1477),
     (sym_type_test_expression, STATE 1477), (sym_relational_expression, STATE 1477),
     (sym_bitwise_or_expression, STATE 1477), (sym_bitwise_xor_expression, STATE 1477),
     (sym_bitwise_and_expression, STATE 1477), (sym_shift_expression, STATE 1477),
     (sym_additive_expression, STATE 1477), (sym_multiplicative_expression, STATE 1477),
     (sym__unary_expression, STATE 1121), (sym_unary_expression, STATE 1303),
     (sym__postfix_expression, STATE 1303), (sym_postfix_expression, STATE 1301),
     (sym_prefix_operator, STATE 431), (sym_negation_operator, STATE 1450),
     (sym__exclamation_operator, STATE 1451), (sym_tilde_operator, STATE 1385),
     (sym_await_expression, STATE 1302), (sym_new_expression, STATE 962),
     (sym_const_object_expression, STATE 962), (sym__primary, STATE 668),
     (sym_parenthesized_expression, STATE 962), (sym_constructor_invocation, STATE 643),
     (sym_constructor_tearoff, STATE 962), (sym_type_arguments, STATE 3200),
     (sym__statement, STATE 556), (sym_local_function_declaration, STATE 533),
     (sym_block, STATE 527), (sym_expression_statement, STATE 527),
     (sym_assert_statement, STATE 527), (sym_assertion, STATE 3380),
     (sym_switch_statement, STATE 527), (sym_switch_expression, STATE 962),
     (sym__parenthesized_pattern, STATE 3182), (sym_list_pattern, STATE 3182),
     (sym_map_pattern, STATE 3182), (sym_record_pattern, STATE 3182),
     (sym_object_pattern, STATE 3182), (sym_pattern_variable_declaration, STATE 3176),
     (sym__outer_pattern, STATE 3410), (sym_pattern_assignment, STATE 908),
     (sym_do_statement, STATE 527), (sym_break_statement, STATE 527),
     (sym_continue_statement, STATE 527), (sym_yield_statement, STATE 527),
     (sym_yield_each_statement, STATE 527), (sym_return_statement, STATE 527),
     (sym_try_statement, STATE 527), (sym__try_head, STATE 464), (sym_if_statement, STATE 527),
     (sym_while_statement, STATE 527), (sym_for_statement, STATE 527),
     (sym_annotation, STATE 1361), (sym__metadata, STATE 1059),
     (sym_type_parameters, STATE 2932), (sym_initialized_variable_definition, STATE 3176),
     (sym__declared_identifier, STATE 2667), (sym__final_const_var_or_type, STATE 3411),
     (sym__type, STATE 2530), (sym__type_not_function, STATE 1796),
     (sym__type_not_void_not_function, STATE 1896), (sym_function_type, STATE 1848),
     (aux_sym__function_type_tails, STATE 1605), (sym__function_type_tail, STATE 1704),
     (sym_record_type, STATE 1805), (sym__type_name, STATE 2004), (sym__var_or_type, STATE 2755),
     (sym_inferred_type, STATE 1771), (sym_function_signature, STATE 2368),
     (sym__formal_parameter_part, STATE 2339), (sym_formal_parameter_list, STATE 2020),
     (sym__strict_formal_parameter_list, STATE 2016),
     (sym_local_variable_declaration, STATE 542), (sym__covariant, STATE 1795),
     (sym__function_builtin_identifier, STATE 1463), (sym__get, STATE 2500),
     (sym__set, STATE 2500), (sym__new_builtin, STATE 2079), (sym_final_builtin, STATE 1764),
     (sym__late_builtin, STATE 1915), (sym_this, STATE 962), (sym_super, STATE 1337),
     (sym_comment, STATE 14), (sym_documentation_comment, STATE 14),
     (aux_sym_string_literal_repeat1, STATE 474), (aux_sym_block_repeat1, STATE 23),
     (aux_sym__metadata_repeat1, STATE 1308), (sym_identifier, ACTIONS 71),
     (anon_sym_POUND, ACTIONS 73), (sym_decimal_integer_literal, ACTIONS 75),
     (sym_hex_integer_literal, ACTIONS 77), (sym_decimal_floating_point_literal, ACTIONS 75),
     (anon_sym_true, ACTIONS 79), (anon_sym_false, ACTIONS 81), (anon_sym_DQUOTE, ACTIONS 83),
     (anon_sym_SQUOTE, ACTIONS 85), (anon_sym_DQUOTE_DQUOTE_DQUOTE, ACTIONS 87),
     (anon_sym_SQUOTE_SQUOTE_SQUOTE, ACTIONS 89), (anon_sym_r_DQUOTE, ACTIONS 91),
     (anon_sym_r_SQUOTE, ACTIONS 93), (anon_sym_r_DQUOTE_DQUOTE_DQUOTE, ACTIONS 95),
     (anon_sym_r_SQUOTE_SQUOTE_SQUOTE, ACTIONS 97), (anon_sym_LBRACE, ACTIONS 172),
     (anon_sym_RBRACE, ACTIONS 352), (anon_sym_LBRACK, ACTIONS 103),
     (anon_sym_null, ACTIONS 105), (anon_sym_LPAREN, ACTIONS 107), (anon_sym_throw, ACTIONS 109),
     (anon_sym_LT, ACTIONS 111), (sym_increment_operator, ACTIONS 113),
     (sym_minus_operator, ACTIONS 117), (anon_sym_BANG, ACTIONS 119),
     (anon_sym_TILDE, ACTIONS 121), (anon_sym_await, ACTIONS 176),
     (anon_sym_switch, ACTIONS 125), (anon_sym_do, ACTIONS 127), (anon_sym_while, ACTIONS 129),
     (anon_sym_continue, ACTIONS 131), (anon_sym_yield, ACTIONS 133),
     (anon_sym_return, ACTIONS 135), (anon_sym_try, ACTIONS 137), (anon_sym_if, ACTIONS 180),
     (anon_sym_for, ACTIONS 182), (anon_sym_AT, ACTIONS 143), (anon_sym_final, ACTIONS 145),
     (sym_void_type, ACTIONS 33), (anon_sym_var, ACTIONS 35), (sym_break_builtin, ACTIONS 147),
     (sym_assert_builtin, ACTIONS 149), (sym_rethrow_builtin, ACTIONS 151),
     (anon_sym_covariant, ACTIONS 153), (anon_sym_Function, ACTIONS 45),
     (anon_sym_get, ACTIONS 47), (anon_sym_set, ACTIONS 61), (anon_sym_new, ACTIONS 155),
     (sym_const_builtin, ACTIONS 157), (anon_sym_late, ACTIONS 67), (anon_sym_this, ACTIONS 159),
     (anon_sym_super, ACTIONS 161), (anon_sym_SLASH_SLASH, ACTIONS 3),
     (anon_sym_SLASH_STAR, ACTIONS 5), (anon_sym_SLASH_SLASH_SLASH, ACTIONS 7),
     (sym__block_comment, ACTIONS 9), (sym__documentation_block_comment, ACTIONS 11)]"

lemma row_ok_14: "table_row_ok 14 ts_parse_table_14"
  by (simp add: row_simps ts_parse_table_14_def)

definition ts_parse_table_15 :: table_row where
  "ts_parse_table_15 = [
     (sym__bool_literal, STATE 989), (sym__numeric_literal, STATE 989),
     (sym__literal, STATE 962), (sym_symbol_literal, STATE 989), (sym_true, STATE 900),
     (sym_false, STATE 900), (sym_string_literal, STATE 989),
     (sym__string_literal_double_quotes, STATE 627),
     (sym__string_literal_single_quotes, STATE 627),
     (sym__string_literal_double_quotes_multiple, STATE 627),
     (sym__string_literal_single_quotes_multiple, STATE 627),
     (sym__raw_string_literal_double_quotes, STATE 627),
     (sym__raw_string_literal_single_quotes, STATE 627),
     (sym__raw_string_literal_double_quotes_multiple, STATE 627),
     (sym__raw_string_literal_single_quotes_multiple, STATE 627), (sym_list_literal, STATE 989),
     (sym_set_or_map_literal, STATE 989), (sym_null_literal, STATE 989),
     (sym_record_literal, STATE 989), (sym__record_literal_no_const, STATE 924),
     (sym__expression, STATE 3203), (sym__real_expression, STATE 660),
     (sym_throw_expression, STATE 908), (sym_rethrow_expression, STATE 908),
     (sym_assignment_expression, STATE 908), (sym_assignable_expression, STATE 1940),
     (sym_lambda_expression, STATE 534), (sym_function_expression, STATE 962),
     (sym_if_null_expression, STATE 1477), (sym_conditional_expression, STATE 1477),
     (sym_logical_or_expression, STATE 1477), (sym_logical_and_expression, STATE 1477),
     (sym_equality_expression, STATE 1477), (sym_type_cast_expression, STATE 1477),
     (sym_type_test_expression, STATE 1477), (sym_relational_expression, STATE 1477),
     (sym_bitwise_or_expression, STATE 1477), (sym_bitwise_xor_expression, STATE 1477),
     (sym_bitwise_and_expression, STATE 1477), (sym_shift_expression, STATE 1477),
     (sym_additive_expression, STATE 1477), (sym_multiplicative_expression, STATE 1477),
     (sym__unary_expression, STATE 1121), (sym_unary_expression, STATE 1303),
     (sym__postfix_expression, STATE 1303), (sym_postfix_expression, STATE 1301),
     (sym_prefix_operator, STATE 431), (sym_negation_operator, STATE 1450),
     (sym__exclamation_operator, STATE 1451), (sym_tilde_operator, STATE 1385),
     (sym_await_expression, STATE 1302), (sym_new_expression, STATE 962),
     (sym_const_object_expression, STATE 962), (sym__primary, STATE 668),
     (sym_parenthesized_expression, STATE 962), (sym_constructor_invocation, STATE 643),
     (sym_constructor_tearoff, STATE 962), (sym_type_arguments, STATE 3200),
     (sym__statement, STATE 556), (sym_local_function_declaration, STATE 533),
     (sym_block, STATE 527), (sym_expression_statement, STATE 527),
     (sym_assert_statement, STATE 527), (sym_assertion, STATE 3380),
     (sym_switch_statement, STATE 527), (sym_switch_expression, STATE 962),
     (sym__parenthesized_pattern, STATE 3182), (sym_list_pattern, STATE 3182),
     (sym_map_pattern, STATE 3182), (sym_record_pattern, STATE 3182),
     (sym_object_pattern, STATE 3182), (sym_pattern_variable_declaration, STATE 3176),
     (sym__outer_pattern, STATE 3410), (sym_pattern_assignment, STATE 908),
     (sym_do_statement, STATE 527), (sym_break_statement, STATE 527),
     (sym_continue_statement, STATE 527), (sym_yield_statement, STATE 527),
     (sym_yield_each_statement, STATE 527), (sym_return_statement, STATE 527),
     (sym_try_statement, STATE 527), (sym__try_head, STATE 464), (sym_if_statement, STATE 527),
     (sym_while_statement, STATE 527), (sym_for_statement, STATE 527),
     (sym_annotation, STATE 1361), (sym__metadata, STATE 1059),
     (sym_type_parameters, STATE 2932), (sym_initialized_variable_definition, STATE 3176),
     (sym__declared_identifier, STATE 2667), (sym__final_const_var_or_type, STATE 3411),
     (sym__type, STATE 2530), (sym__type_not_function, STATE 1796),
     (sym__type_not_void_not_function, STATE 1896), (sym_function_type, STATE 1848),
     (aux_sym__function_type_tails, STATE 1605), (sym__function_type_tail, STATE 1704),
     (sym_record_type, STATE 1805), (sym__type_name, STATE 2004), (sym__var_or_type, STATE 2755),
     (sym_inferred_type, STATE 1771), (sym_function_signature, STATE 2368),
     (sym__formal_parameter_part, STATE 2339), (sym_formal_parameter_list, STATE 2020),
     (sym__strict_formal_parameter_list, STATE 2016),
     (sym_local_variable_declaration, STATE 542), (sym__covariant, STATE 1795),
     (sym__function_builtin_identifier, STATE 1463), (sym__get, STATE 2500),
     (sym__set, STATE 2500), (sym__new_builtin, STATE 2079), (sym_final_builtin, STATE 1764),
     (sym__late_builtin, STATE 1915), (sym_this, STATE 962), (sym_super, STATE 1337),
     (sym_comment, STATE 15), (sym_documentation_comment, STATE 15),
     (aux_sym_string_literal_repeat1, STATE 474), (aux_sym_block_repeat1, STATE 27),
     (aux_sym__metadata_repeat1, STATE 1308), (sym_identifier, ACTIONS 71),
     (anon_sym_POUND, ACTIONS 73), (sym_decimal_integer_literal, ACTIONS 75),
     (sym_hex_integer_literal, ACTIONS 77), (sym_decimal_floating_point_literal, ACTIONS 75),
     (anon_sym_true, ACTIONS 79), (anon_sym_false, ACTIONS 81), (anon_sym_DQUOTE, ACTIONS 83),
     (anon_sym_SQUOTE, ACTIONS 85), (anon_sym_DQUOTE_DQUOTE_DQUOTE, ACTIONS 87),
     (anon_sym_SQUOTE_SQUOTE_SQUOTE, ACTIONS 89), (anon_sym_r_DQUOTE, ACTIONS 91),
     (anon_sym_r_SQUOTE, ACTIONS 93), (anon_sym_r_DQUOTE_DQUOTE_DQUOTE, ACTIONS 95),
     (anon_sym_r_SQUOTE_SQUOTE_SQUOTE, ACTIONS 97), (anon_sym_LBRACE, ACTIONS 172),
     (anon_sym_RBRACE, ACTIONS 354), (anon_sym_LBRACK, ACTIONS 103),
     (anon_sym_null, ACTIONS 105), (anon_sym_LPAREN, ACTIONS 107), (anon_sym_throw, ACTIONS 109),
     (anon_sym_LT, ACTIONS 111), (sym_increment_operator, ACTIONS 113),
     (sym_minus_operator, ACTIONS 117), (anon_sym_BANG, ACTIONS 119),
     (anon_sym_TILDE, ACTIONS 121), (anon_sym_await, ACTIONS 176),
     (anon_sym_switch, ACTIONS 125), (anon_sym_do, ACTIONS 127), (anon_sym_while, ACTIONS 129),
     (anon_sym_continue, ACTIONS 131), (anon_sym_yield, ACTIONS 133),
     (anon_sym_return, ACTIONS 135), (anon_sym_try, ACTIONS 137), (anon_sym_if, ACTIONS 180),
     (anon_sym_for, ACTIONS 182), (anon_sym_AT, ACTIONS 143), (anon_sym_final, ACTIONS 145),
     (sym_void_type, ACTIONS 33), (anon_sym_var, ACTIONS 35), (sym_break_builtin, ACTIONS 147),
     (sym_assert_builtin, ACTIONS 149), (sym_rethrow_builtin, ACTIONS 151),
     (anon_sym_covariant, ACTIONS 153), (anon_sym_Function, ACTIONS 45),
     (anon_sym_get, ACTIONS 47), (anon_sym_set, ACTIONS 61), (anon_sym_new, ACTIONS 155),
     (sym_const_builtin, ACTIONS 157), (anon_sym_late, ACTIONS 67), (anon_sym_this, ACTIONS 159),
     (anon_sym_super, ACTIONS 161), (anon_sym_SLASH_SLASH, ACTIONS 3),
     (anon_sym_SLASH_STAR, ACTIONS 5), (anon_sym_SLASH_SLASH_SLASH, ACTIONS 7),
     (sym__block_comment, ACTIONS 9), (sym__documentation_block_comment, ACTIONS 11)]"

lemma row_ok_15: "table_row_ok 15 ts_parse_table_15"
  by (simp add: row_simps ts_parse_table_15_def)

definition ts_parse_table_16 :: table_row where
  "ts_parse_table_16 = [
     (sym__bool_literal, STATE 989), (sym__numeric_literal, STATE 989),
     (sym__literal, STATE 962), (sym_symbol_literal, STATE 989), (sym_true, STATE 900),
     (sym_false, STATE 900), (sym_string_literal, STATE 989),
     (sym__string_literal_double_quotes, STATE 627),
     (sym__string_literal_single_quotes, STATE 627),
     (sym__string_literal_double_quotes_multiple, STATE 627),
     (sym__string_literal_single_quotes_multiple, STATE 627),
     (sym__raw_string_literal_double_quotes, STATE 627),
     (sym__raw_string_literal_single_quotes, STATE 627),
     (sym__raw_string_literal_double_quotes_multiple, STATE 627),
     (sym__raw_string_literal_single_quotes_multiple, STATE 627), (sym_list_literal, STATE 989),
     (sym_set_or_map_literal, STATE 989), (sym_null_literal, STATE 989),
     (sym_record_literal, STATE 989), (sym__record_literal_no_const, STATE 924),
     (sym__expression, STATE 3203), (sym__real_expression, STATE 660),
     (sym_throw_expression, STATE 908), (sym_rethrow_expression, STATE 908),
     (sym_assignment_expression, STATE 908), (sym_assignable_expression, STATE 1940),
     (sym_lambda_expression, STATE 534), (sym_function_expression, STATE 962),
     (sym_if_null_expression, STATE 1477), (sym_conditional_expression, STATE 1477),
     (sym_logical_or_expression, STATE 1477), (sym_logical_and_expression, STATE 1477),
     (sym_equality_expression, STATE 1477), (sym_type_cast_expression, STATE 1477),
     (sym_type_test_expression, STATE 1477), (sym_relational_expression, STATE 1477),
     (sym_bitwise_or_expression, STATE 1477), (sym_bitwise_xor_expression, STATE 1477),
     (sym_bitwise_and_expression, STATE 1477), (sym_shift_expression, STATE 1477),
     (sym_additive_expression, STATE 1477), (sym_multiplicative_expression, STATE 1477),
     (sym__unary_expression, STATE 1121), (sym_unary_expression, STATE 1303),
     (sym__postfix_expression, STATE 1303), (sym_postfix_expression, STATE 1301),
     (sym_prefix_operator, STATE 431), (sym_negation_operator, STATE 1450),
     (sym__exclamation_operator, STATE 1451), (sym_tilde_operator, STATE 1385),
     (sym_await_expression, STATE 1302), (sym_new_expression, STATE 962),
     (sym_const_object_expression, STATE 962), (sym__primary, STATE 668),
     (sym_parenthesized_expression, STATE 962), (sym_constructor_invocation, STATE 643),
     (sym_constructor_tearoff, STATE 962), (sym_type_arguments, STATE 3200),
     (sym__statement, STATE 556), (sym_local_function_declaration, STATE 533),
     (sym_block, STATE 527), (sym_expression_statement, STATE 527),
     (sym_assert_statement, STATE 527), (sym_assertion, STATE 3380),
     (sym_switch_statement, STATE 527), (sym_switch_expression, STATE 962),
     (sym__parenthesized_pattern, STATE 3182), (sym_list_pattern, STATE 3182),
     (sym_map_pattern, STATE 3182), (sym_record_pattern, STATE 3182),
     (sym_object_pattern, STATE 3182), (sym_pattern_variable_declaration, STATE 3176),
     (sym__outer_pattern, STATE 3410), (sym_pattern_assignment, STATE 908),
     (sym_do_statement, STATE 527), (sym_break_statement, STATE 527),
     (sym_continue_statement, STATE 527), (sym_yield_statement, STATE 527),
     (sym_yield_each_statement, STATE 527), (sym_return_statement, STATE 527),
     (sym_try_statement, STATE 527), (sym__try_head, STATE 464), (sym_if_statement, STATE 527),
     (sym_while_statement, STATE 527), (sym_for_statement, STATE 527),
     (sym_annotation, STATE 1361), (sym__metadata, STATE 1059),
     (sym_type_parameters, STATE 2932), (sym_initialized_variable_definition, STATE 3176),
     (sym__declared_identifier, STATE 2667), (sym__final_const_var_or_type, STATE 3411),
     (sym__type, STATE 2530), (sym__type_not_function, STATE 1796),
     (sym__type_not_void_not_function, STATE 1896), (sym_function_type, STATE 1848),
     (aux_sym__function_type_tails, STATE 1605), (sym__function_type_tail, STATE 1704),
     (sym_record_type, STATE 1805), (sym__type_name, STATE 2004), (sym__var_or_type, STATE 2755),
     (sym_inferred_type, STATE 1771), (sym_function_signature, STATE 2368),
     (sym__formal_parameter_part, STATE 2339), (sym_formal_parameter_list, STATE 2020),
     (sym__strict_formal_parameter_list, STATE 2016),
     (sym_local_variable_declaration, STATE 542), (sym__covariant, STATE 1795),
     (sym__function_builtin_identifier, STATE 1463), (sym__get, STATE 2500),
     (sym__set, STATE 2500), (sym__new_builtin, STATE 2079), (sym_final_builtin, STATE 1764),
     (sym__late_builtin, STATE 1915), (sym_this, STATE 962), (sym_super, STATE 1337),
     (sym_comment, STATE 16), (sym_documentation_comment, STATE 16),
     (aux_sym_string_literal_repeat1, STATE 474), (aux_sym_block_repeat1, STATE 13),
     (aux_sym__metadata_repeat1, STATE 1308), (sym_identifier, ACTIONS 71),
     (anon_sym_POUND, ACTIONS 73), (sym_decimal_integer_literal, ACTIONS 75),
     (sym_hex_integer_literal, ACTIONS 77), (sym_decimal_floating_point_literal, ACTIONS 75),
     (anon_sym_true, ACTIONS 79), (anon_sym_false, ACTIONS 81), (anon_sym_DQUOTE, ACTIONS 83),
     (anon_sym_SQUOTE, ACTIONS 85), (anon_sym_DQUOTE_DQUOTE_DQUOTE, ACTIONS 87),
     (anon_sym_SQUOTE_SQUOTE_SQUOTE, ACTIONS 89), (anon_sym_r_DQUOTE, ACTIONS 91),
     (anon_sym_r_SQUOTE, ACTIONS 93), (anon_sym_r_DQUOTE_DQUOTE_DQUOTE, ACTIONS 95),
     (anon_sym_r_SQUOTE_SQUOTE_SQUOTE, ACTIONS 97), (anon_sym_LBRACE, ACTIONS 172),
     (anon_sym_RBRACE, ACTIONS 356), (anon_sym_LBRACK, ACTIONS 103),
     (anon_sym_null, ACTIONS 105), (anon_sym_LPAREN, ACTIONS 107), (anon_sym_throw, ACTIONS 109),
     (anon_sym_LT, ACTIONS 111), (sym_increment_operator, ACTIONS 113),
     (sym_minus_operator, ACTIONS 117), (anon_sym_BANG, ACTIONS 119),
     (anon_sym_TILDE, ACTIONS 121), (anon_sym_await, ACTIONS 176),
     (anon_sym_switch, ACTIONS 125), (anon_sym_do, ACTIONS 127), (anon_sym_while, ACTIONS 129),
     (anon_sym_continue, ACTIONS 131), (anon_sym_yield, ACTIONS 133),
     (anon_sym_return, ACTIONS 135), (anon_sym_try, ACTIONS 137), (anon_sym_if, ACTIONS 180),
     (anon_sym_for, ACTIONS 182), (anon_sym_AT, ACTIONS 143), (anon_sym_final, ACTIONS 145),
     (sym_void_type, ACTIONS 33), (anon_sym_var, ACTIONS 35), (sym_break_builtin, ACTIONS 147),
     (sym_assert_builtin, ACTIONS 149), (sym_rethrow_builtin, ACTIONS 151),
     (anon_sym_covariant, ACTIONS 153), (anon_sym_Function, ACTIONS 45),
     (anon_sym_get, ACTIONS 47), (anon_sym_set, ACTIONS 61), (anon_sym_new, ACTIONS 155),
     (sym_const_builtin, ACTIONS 157), (anon_sym_late, ACTIONS 67), (anon_sym_this, ACTIONS 159),
     (anon_sym_super, ACTIONS 161), (anon_sym_SLASH_SLASH, ACTIONS 3),
     (anon_sym_SLASH_STAR, ACTIONS 5), (anon_sym_SLASH_SLASH_SLASH, ACTIONS 7),
     (sym__block_comment, ACTIONS 9), (sym__documentation_block_comment, ACTIONS 11)]"

lemma row_ok_16: "table_row_ok 16 ts_parse_table_16"
  by (simp add: row_simps ts_parse_table_16_def)

definition ts_parse_table_17 :: table_row where
  "ts_parse_table_17 = [
     (sym__bool_literal, STATE 989), (sym__numeric_literal, STATE 989),
     (sym__literal, STATE 962), (sym_symbol_literal, STATE 989), (sym_true, STATE 900),
     (sym_false, STATE 900), (sym_string_literal, STATE 989),
     (sym__string_literal_double_quotes, STATE 627),
     (sym__string_literal_single_quotes, STATE 627),
     (sym__string_literal_double_quotes_multiple, STATE 627),
     (sym__string_literal_single_quotes_multiple, STATE 627),
     (sym__raw_string_literal_double_quotes, STATE 627),
     (sym__raw_string_literal_single_quotes, STATE 627),
     (sym__raw_string_literal_double_quotes_multiple, STATE 627),
     (sym__raw_string_literal_single_quotes_multiple, STATE 627), (sym_list_literal, STATE 989),
     (sym_set_or_map_literal, STATE 989), (sym_null_literal, STATE 989),
     (sym_record_literal, STATE 989), (sym__record_literal_no_const, STATE 924),
     (sym__expression, STATE 3203), (sym__real_expression, STATE 660),
     (sym_throw_expression, STATE 908), (sym_rethrow_expression, STATE 908),
     (sym_assignment_expression, STATE 908), (sym_assignable_expression, STATE 1940),
     (sym_lambda_expression, STATE 534), (sym_function_expression, STATE 962),
     (sym_if_null_expression, STATE 1477), (sym_conditional_expression, STATE 1477),
     (sym_logical_or_expression, STATE 1477), (sym_logical_and_expression, STATE 1477),
     (sym_equality_expression, STATE 1477), (sym_type_cast_expression, STATE 1477),
     (sym_type_test_expression, STATE 1477), (sym_relational_expression, STATE 1477),
     (sym_bitwise_or_expression, STATE 1477), (sym_bitwise_xor_expression, STATE 1477),
     (sym_bitwise_and_expression, STATE 1477), (sym_shift_expression, STATE 1477),
     (sym_additive_expression, STATE 1477), (sym_multiplicative_expression, STATE 1477),
     (sym__unary_expression, STATE 1121), (sym_unary_expression, STATE 1303),
     (sym__postfix_expression, STATE 1303), (sym_postfix_expression, STATE 1301),
     (sym_prefix_operator, STATE 431), (sym_negation_operator, STATE 1450),
     (sym__exclamation_operator, STATE 1451), (sym_tilde_operator, STATE 1385),
     (sym_await_expression, STATE 1302), (sym_new_expression, STATE 962),
     (sym_const_object_expression, STATE 962), (sym__primary, STATE 668),
     (sym_parenthesized_expression, STATE 962), (sym_constructor_invocation, STATE 643),
     (sym_constructor_tearoff, STATE 962), (sym_type_arguments, STATE 3200),
     (sym__statement, STATE 556), (sym_local_function_declaration, STATE 533),
     (sym_block, STATE 527), (sym_expression_statement, STATE 527),
     (sym_assert_statement, STATE 527), (sym_assertion, STATE 3380),
     (sym_switch_statement, STATE 527), (sym_switch_expression, STATE 962),
     (sym__parenthesized_pattern, STATE 3182), (sym_list_pattern, STATE 3182),
     (sym_map_pattern, STATE 3182), (sym_record_pattern, STATE 3182),
     (sym_object_pattern, STATE 3182), (sym_pattern_variable_declaration, STATE 3176),
     (sym__outer_pattern, STATE 3410), (sym_pattern_assignment, STATE 908),
     (sym_do_statement, STATE 527), (sym_break_statement, STATE 527),
     (sym_continue_statement, STATE 527), (sym_yield_statement, STATE 527),
     (sym_yield_each_statement, STATE 527), (sym_return_statement, STATE 527),
     (sym_try_statement, STATE 527), (sym__try_head, STATE 464), (sym_if_statement, STATE 527),
     (sym_while_statement, STATE 527), (sym_for_statement, STATE 527),
     (sym_annotation, STATE 1361), (sym__metadata, STATE 1059),
     (sym_type_parameters, STATE 2932), (sym_initialized_variable_definition, STATE 3176),
     (sym__declared_identifier, STATE 2667), (sym__final_const_var_or_type, STATE 3411),
     (sym__type, STATE 2530), (sym__type_not_function, STATE 1796),
     (sym__type_not_void_not_function, STATE 1896), (sym_function_type, STATE 1848),
     (aux_sym__function_type_tails, STATE 1605), (sym__function_type_tail, STATE 1704),
     (sym_record_type, STATE 1805), (sym__type_name, STATE 2004), (sym__var_or_type, STATE 2755),
     (sym_inferred_type, STATE 1771), (sym_function_signature, STATE 2368),
     (sym__formal_parameter_part, STATE 2339), (sym_formal_parameter_list, STATE 2020),
     (sym__strict_formal_parameter_list, STATE 2016),
     (sym_local_variable_declaration, STATE 542), (sym__covariant, STATE 1795),
     (sym__function_builtin_identifier, STATE 1463), (sym__get, STATE 2500),
     (sym__set, STATE 2500), (sym__new_builtin, STATE 2079), (sym_final_builtin, STATE 1764),
     (sym__late_builtin, STATE 1915), (sym_this, STATE 962), (sym_super, STATE 1337),
     (sym_comment, STATE 17), (sym_documentation_comment, STATE 17),
     (aux_sym_string_literal_repeat1, STATE 474), (aux_sym_block_repeat1, STATE 13),
     (aux_sym__metadata_repeat1, STATE 1308), (sym_identifier, ACTIONS 71),
     (anon_sym_POUND, ACTIONS 73), (sym_decimal_integer_literal, ACTIONS 75),
     (sym_hex_integer_literal, ACTIONS 77), (sym_decimal_floating_point_literal, ACTIONS 75),
     (anon_sym_true, ACTIONS 79), (anon_sym_false, ACTIONS 81), (anon_sym_DQUOTE, ACTIONS 83),
     (anon_sym_SQUOTE, ACTIONS 85), (anon_sym_DQUOTE_DQUOTE_DQUOTE, ACTIONS 87),
     (anon_sym_SQUOTE_SQUOTE_SQUOTE, ACTIONS 89), (anon_sym_r_DQUOTE, ACTIONS 91),
     (anon_sym_r_SQUOTE, ACTIONS 93), (anon_sym_r_DQUOTE_DQUOTE_DQUOTE, ACTIONS 95),
     (anon_sym_r_SQUOTE_SQUOTE_SQUOTE, ACTIONS 97), (anon_sym_LBRACE, ACTIONS 172),
     (anon_sym_RBRACE, ACTIONS 358), (anon_sym_LBRACK, ACTIONS 103),
     (anon_sym_null, ACTIONS 105), (anon_sym_LPAREN, ACTIONS 107), (anon_sym_throw, ACTIONS 109),
     (anon_sym_LT, ACTIONS 111), (sym_increment_operator, ACTIONS 113),
     (sym_minus_operator, ACTIONS 117), (anon_sym_BANG, ACTIONS 119),
     (anon_sym_TILDE, ACTIONS 121), (anon_sym_await, ACTIONS 176),
     (anon_sym_switch, ACTIONS 125), (anon_sym_do, ACTIONS 127), (anon_sym_while, ACTIONS 129),
     (anon_sym_continue, ACTIONS 131), (anon_sym_yield, ACTIONS 133),
     (anon_sym_return, ACTIONS 135), (anon_sym_try, ACTIONS 137), (anon_sym_if, ACTIONS 180),
     (anon_sym_for, ACTIONS 182), (anon_sym_AT, ACTIONS 143), (anon_sym_final, ACTIONS 145),
     (sym_void_type, ACTIONS 33), (anon_sym_var, ACTIONS 35), (sym_break_builtin, ACTIONS 147),
     (sym_assert_builtin, ACTIONS 149), (sym_rethrow_builtin, ACTIONS 151),
     (anon_sym_covariant, ACTIONS 153), (anon_sym_Function, ACTIONS 45),
     (anon_sym_get, ACTIONS 47), (anon_sym_set, ACTIONS 61), (anon_sym_new, ACTIONS 155),
     (sym_const_builtin, ACTIONS 157), (anon_sym_late, ACTIONS 67), (anon_sym_this, ACTIONS 159),
     (anon_sym_super, ACTIONS 161), (anon_sym_SLASH_SLASH, ACTIONS 3),
     (anon_sym_SLASH_STAR, ACTIONS 5), (anon_sym_SLASH_SLASH_SLASH, ACTIONS 7),
     (sym__block_comment, ACTIONS 9), (sym__documentation_block_comment, ACTIONS 11)]"

lemma row_ok_17: "table_row_ok 17 ts_parse_table_17"
  by (simp add: row_simps ts_parse_table_17_def)

definition ts_parse_table_18 :: table_row where
  "ts_parse_table_18 = [
     (sym__bool_literal, STATE 989), (sym__numeric_literal, STATE 989),
     (sym__literal, STATE 962), (sym_symbol_literal, STATE 989), (sym_true, STATE 900),
     (sym_false, STATE 900), (sym_string_literal, STATE 989),
     (sym__string_literal_double_quotes, STATE 627),
     (sym__string_literal_single_quotes, STATE 627),
     (sym__string_literal_double_quotes_multiple, STATE 627),
     (sym__string_literal_single_quotes_multiple, STATE 627),
     (sym__raw_string_literal_double_quotes, STATE 627),
     (sym__raw_string_literal_single_quotes, STATE 627),
     (sym__raw_string_literal_double_quotes_multiple, STATE 627),
     (sym__raw_string_literal_single_quotes_multiple, STATE 627), (sym_list_literal, STATE 989),
     (sym_set_or_map_literal, STATE 989), (sym_null_literal, STATE 989),
     (sym_record_literal, STATE 989), (sym__record_literal_no_const, STATE 924),
     (sym__expression, STATE 3203), (sym__real_expression, STATE 660),
     (sym_throw_expression, STATE 908), (sym_rethrow_expression, STATE 908),
     (sym_assignment_expression, STATE 908), (sym_assignable_expression, STATE 1940),
     (sym_lambda_expression, STATE 534), (sym_function_expression, STATE 962),
     (sym_if_null_expression, STATE 1477), (sym_conditional_expression, STATE 1477),
     (sym_logical_or_expression, STATE 1477), (sym_logical_and_expression, STATE 1477),
     (sym_equality_expression, STATE 1477), (sym_type_cast_expression, STATE 1477),
     (sym_type_test_expression, STATE 1477), (sym_relational_expression, STATE 1477),
     (sym_bitwise_or_expression, STATE 1477), (sym_bitwise_xor_expression, STATE 1477),
     (sym_bitwise_and_expression, STATE 1477), (sym_shift_expression, STATE 1477),
     (sym_additive_expression, STATE 1477), (sym_multiplicative_expression, STATE 1477),
     (sym__unary_expression, STATE 1121), (sym_unary_expression, STATE 1303),
     (sym__postfix_expression, STATE 1303), (sym_postfix_expression, STATE 1301),
     (sym_prefix_operator, STATE 431), (sym_negation_operator, STATE 1450),
     (sym__exclamation_operator, STATE 1451), (sym_tilde_operator, STATE 1385),
     (sym_await_expression, STATE 1302), (sym_new_expression, STATE 962),
     (sym_const_object_expression, STATE 962), (sym__primary, STATE 668),
     (sym_parenthesized_expression, STATE 962), (sym_constructor_invocation, STATE 643),
     (sym_constructor_tearoff, STATE 962), (sym_type_arguments, STATE 3200),
     (sym__statement, STATE 556), (sym_local_function_declaration, STATE 533),
     (sym_block, STATE 527), (sym_expression_statement, STATE 527),
     (sym_assert_statement, STATE 527), (sym_assertion, STATE 3380),
     (sym_switch_statement, STATE 527), (sym_switch_expression, STATE 962),
     (sym__parenthesized_pattern, STATE 3182), (sym_list_pattern, STATE 3182),
     (sym_map_pattern, STATE 3182), (sym_record_pattern, STATE 3182),
     (sym_object_pattern, STATE 3182), (sym_pattern_variable_declaration, STATE 3176),
     (sym__outer_pattern, STATE 3410), (sym_pattern_assignment, STATE 908),
     (sym_do_statement, STATE 527), (sym_break_statement, STATE 527),
     (sym_continue_statement, STATE 527), (sym_yield_statement, STATE 527),
     (sym_yield_each_statement, STATE 527), (sym_return_statement, STATE 527),
     (sym_try_statement, STATE 527), (sym__try_head, STATE 464), (sym_if_statement, STATE 527),
     (sym_while_statement, STATE 527), (sym_for_statement, STATE 527),
     (sym_annotation, STATE 1361), (sym__metadata, STATE 1059),
     (sym_type_parameters, STATE 2932), (sym_initialized_variable_definition, STATE 3176),
     (sym__declared_identifier, STATE 2667), (sym__final_const_var_or_type, STATE 3411),
     (sym__type, STATE 2530), (sym__type_not_function, STATE 1796),
     (sym__type_not_void_not_function, STATE 1896), (sym_function_type, STATE 1848),
     (aux_sym__function_type_tails, STATE 1605), (sym__function_type_tail, STATE 1704),
     (sym_record_type, STATE 1805), (sym__type_name, STATE 2004), (sym__var_or_type, STATE 2755),
     (sym_inferred_type, STATE 1771), (sym_function_signature, STATE 2368),
     (sym__formal_parameter_part, STATE 2339), (sym_formal_parameter_list, STATE 2020),
     (sym__strict_formal_parameter_list, STATE 2016),
     (sym_local_variable_declaration, STATE 542), (sym__covariant, STATE 1795),
     (sym__function_builtin_identifier, STATE 1463), (sym__get, STATE 2500),
     (sym__set, STATE 2500), (sym__new_builtin, STATE 2079), (sym_final_builtin, STATE 1764),
     (sym__late_builtin, STATE 1915), (sym_this, STATE 962), (sym_super, STATE 1337),
     (sym_comment, STATE 18), (sym_documentation_comment, STATE 18),
     (aux_sym_string_literal_repeat1, STATE 474), (aux_sym_block_repeat1, STATE 24),
     (aux_sym__metadata_repeat1, STATE 1308), (sym_identifier, ACTIONS 71),
     (anon_sym_POUND, ACTIONS 73), (sym_decimal_integer_literal, ACTIONS 75),
     (sym_hex_integer_literal, ACTIONS 77), (sym_decimal_floating_point_literal, ACTIONS 75),
     (anon_sym_true, ACTIONS 79), (anon_sym_false, ACTIONS 81), (anon_sym_DQUOTE, ACTIONS 83),
     (anon_sym_SQUOTE, ACTIONS 85), (anon_sym_DQUOTE_DQUOTE_DQUOTE, ACTIONS 87),
     (anon_sym_SQUOTE_SQUOTE_SQUOTE, ACTIONS 89), (anon_sym_r_DQUOTE, ACTIONS 91),
     (anon_sym_r_SQUOTE, ACTIONS 93), (anon_sym_r_DQUOTE_DQUOTE_DQUOTE, ACTIONS 95),
     (anon_sym_r_SQUOTE_SQUOTE_SQUOTE, ACTIONS 97), (anon_sym_LBRACE, ACTIONS 172),
     (anon_sym_RBRACE, ACTIONS 360), (anon_sym_LBRACK, ACTIONS 103),
     (anon_sym_null, ACTIONS 105), (anon_sym_LPAREN, ACTIONS 107), (anon_sym_throw, ACTIONS 109),
     (anon_sym_LT, ACTIONS 111), (sym_increment_operator, ACTIONS 113),
     (sym_minus_operator, ACTIONS 117), (anon_sym_BANG, ACTIONS 119),
     (anon_sym_TILDE, ACTIONS 121), (anon_sym_await, ACTIONS 176),
     (anon_sym_switch, ACTIONS 125), (anon_sym_do, ACTIONS 127), (anon_sym_while, ACTIONS 129),
     (anon_sym_continue, ACTIONS 131), (anon_sym_yield, ACTIONS 133),
     (anon_sym_return, ACTIONS 135), (anon_sym_try, ACTIONS 137), (anon_sym_if, ACTIONS 180),
     (anon_sym_for, ACTIONS 182), (anon_sym_AT, ACTIONS 143), (anon_sym_final, ACTIONS 145),
     (sym_void_type, ACTIONS 33), (anon_sym_var, ACTIONS 35), (sym_break_builtin, ACTIONS 147),
     (sym_assert_builtin, ACTIONS 149), (sym_rethrow_builtin, ACTIONS 151),
     (anon_sym_covariant, ACTIONS 153), (anon_sym_Function, ACTIONS 45),
     (anon_sym_get, ACTIONS 47), (anon_sym_set, ACTIONS 61), (anon_sym_new, ACTIONS 155),
     (sym_const_builtin, ACTIONS 157), (anon_sym_late, ACTIONS 67), (anon_sym_this, ACTIONS 159),
     (anon_sym_super, ACTIONS 161), (anon_sym_SLASH_SLASH, ACTIONS 3),
     (anon_sym_SLASH_STAR, ACTIONS 5), (anon_sym_SLASH_SLASH_SLASH, ACTIONS 7),
     (sym__block_comment, ACTIONS 9), (sym__documentation_block_comment, ACTIONS 11)]"

lemma row_ok_18: "table_row_ok 18 ts_parse_table_18"
  by (simp add: row_simps ts_parse_table_18_def)

definition ts_parse_table_19 :: table_row where
  "ts_parse_table_19 = [
     (sym__bool_literal, STATE 989), (sym__numeric_literal, STATE 989),
     (sym__literal, STATE 962), (sym_symbol_literal, STATE 989), (sym_true, STATE 900),
     (sym_false, STATE 900), (sym_string_literal, STATE 989),
     (sym__string_literal_double_quotes, STATE 627),
     (sym__string_literal_single_quotes, STATE 627),
     (sym__string_literal_double_quotes_multiple, STATE 627),
     (sym__string_literal_single_quotes_multiple, STATE 627),
     (sym__raw_string_literal_double_quotes, STATE 627),
     (sym__raw_string_literal_single_quotes, STATE 627),
     (sym__raw_string_literal_double_quotes_multiple, STATE 627),
     (sym__raw_string_literal_single_quotes_multiple, STATE 627), (sym_list_literal, STATE 989),
     (sym_set_or_map_literal, STATE 989), (sym_null_literal, STATE 989),
     (sym_record_literal, STATE 989), (sym__record_literal_no_const, STATE 924),
     (sym__expression, STATE 3203), (sym__real_expression, STATE 660),
     (sym_throw_expression, STATE 908), (sym_rethrow_expression, STATE 908),
     (sym_assignment_expression, STATE 908), (sym_assignable_expression, STATE 1940),
     (sym_lambda_expression, STATE 534), (sym_function_expression, STATE 962),
     (sym_if_null_expression, STATE 1477), (sym_conditional_expression, STATE 1477),
     (sym_logical_or_expression, STATE 1477), (sym_logical_and_expression, STATE 1477),
     (sym_equality_expression, STATE 1477), (sym_type_cast_expression, STATE 1477),
     (sym_type_test_expression, STATE 1477), (sym_relational_expression, STATE 1477),
     (sym_bitwise_or_expression, STATE 1477), (sym_bitwise_xor_expression, STATE 1477),
     (sym_bitwise_and_expression, STATE 1477), (sym_shift_expression, STATE 1477),
     (sym_additive_expression, STATE 1477), (sym_multiplicative_expression, STATE 1477),
     (sym__unary_expression, STATE 1121), (sym_unary_expression, STATE 1303),
     (sym__postfix_expression, STATE 1303), (sym_postfix_expression, STATE 1301),
     (sym_prefix_operator, STATE 431), (sym_negation_operator, STATE 1450),
     (sym__exclamation_operator, STATE 1451), (sym_tilde_operator, STATE 1385),
     (sym_await_expression, STATE 1302), (sym_new_expression, STATE 962),
     (sym_const_object_expression, STATE 962), (sym__primary, STATE 668),
     (sym_parenthesized_expression, STATE 962), (sym_constructor_invocation, STATE 643),
     (sym_constructor_tearoff, STATE 962), (sym_type_arguments, STATE 3200),
     (sym__statement, STATE 556), (sym_local_function_declaration, STATE 533),
     (sym_block, STATE 527), (sym_expression_statement, STATE 527),
     (sym_assert_statement, STATE 527), (sym_assertion, STATE 3380),
     (sym_switch_statement, STATE 527), (sym_switch_expression, STATE 962),
     (sym__parenthesized_pattern, STATE 3182), (sym_list_pattern, STATE 3182),
     (sym_map_pattern, STATE 3182), (sym_record_pattern, STATE 3182),
     (sym_object_pattern, STATE 3182), (sym_pattern_variable_declaration, STATE 3176),
     (sym__outer_pattern, STATE 3410), (sym_pattern_assignment, STATE 908),
     (sym_do_statement, STATE 527), (sym_break_statement, STATE 527),
     (sym_continue_statement, STATE 527), (sym_yield_statement, STATE 527),
     (sym_yield_each_statement, STATE 527), (sym_return_statement, STATE 527),
     (sym_try_statement, STATE 527), (sym__try_head, STATE 464), (sym_if_statement, STATE 527),
     (sym_while_statement, STATE 527), (sym_for_statement, STATE 527),
     (sym_annotation, STATE 1361), (sym__metadata, STATE 1059),
     (sym_type_parameters, STATE 2932), (sym_initialized_variable_definition, STATE 3176),
     (sym__declared_identifier, STATE 2667), (sym__final_const_var_or_type, STATE 3411),
     (sym__type, STATE 2530), (sym__type_not_function, STATE 1796),
     (sym__type_not_void_not_function, STATE 1896), (sym_function_type, STATE 1848),
     (aux_sym__function_type_tails, STATE 1605), (sym__function_type_tail, STATE 1704),
     (sym_record_type, STATE 1805), (sym__type_name, STATE 2004), (sym__var_or_type, STATE 2755),
     (sym_inferred_type, STATE 1771), (sym_function_signature, STATE 2368),
     (sym__formal_parameter_part, STATE 2339), (sym_formal_parameter_list, STATE 2020),
     (sym__strict_formal_parameter_list, STATE 2016),
     (sym_local_variable_declaration, STATE 542), (sym__covariant, STATE 1795),
     (sym__function_builtin_identifier, STATE 1463), (sym__get, STATE 2500),
     (sym__set, STATE 2500), (sym__new_builtin, STATE 2079), (sym_final_builtin, STATE 1764),
     (sym__late_builtin, STATE 1915), (sym_this, STATE 962), (sym_super, STATE 1337),
     (sym_comment, STATE 19), (sym_documentation_comment, STATE 19),
     (aux_sym_string_literal_repeat1, STATE 474), (aux_sym_block_repeat1, STATE 17),
     (aux_sym__metadata_repeat1, STATE 1308), (sym_identifier, ACTIONS 71),
     (anon_sym_POUND, ACTIONS 73), (sym_decimal_integer_literal, ACTIONS 75),
     (sym_hex_integer_literal, ACTIONS 77), (sym_decimal_floating_point_literal, ACTIONS 75),
     (anon_sym_true, ACTIONS 79), (anon_sym_false, ACTIONS 81), (anon_sym_DQUOTE, ACTIONS 83),
     (anon_sym_SQUOTE, ACTIONS 85), (anon_sym_DQUOTE_DQUOTE_DQUOTE, ACTIONS 87),
     (anon_sym_SQUOTE_SQUOTE_SQUOTE, ACTIONS 89), (anon_sym_r_DQUOTE, ACTIONS 91),
     (anon_sym_r_SQUOTE, ACTIONS 93), (anon_sym_r_DQUOTE_DQUOTE_DQUOTE, ACTIONS 95),
     (anon_sym_r_SQUOTE_SQUOTE_SQUOTE, ACTIONS 97), (anon_sym_LBRACE, ACTIONS 172),
     (anon_sym_RBRACE, ACTIONS 362), (anon_sym_LBRACK, ACTIONS 103),
     (anon_sym_null, ACTIONS 105), (anon_sym_LPAREN, ACTIONS 107), (anon_sym_throw, ACTIONS 109),
     (anon_sym_LT, ACTIONS 111), (sym_increment_operator, ACTIONS 113),
     (sym_minus_operator, ACTIONS 117), (anon_sym_BANG, ACTIONS 119),
     (anon_sym_TILDE, ACTIONS 121), (anon_sym_await, ACTIONS 176),
     (anon_sym_switch, ACTIONS 125), (anon_sym_do, ACTIONS 127), (anon_sym_while, ACTIONS 129),
     (anon_sym_continue, ACTIONS 131), (anon_sym_yield, ACTIONS 133),
     (anon_sym_return, ACTIONS 135), (anon_sym_try, ACTIONS 137), (anon_sym_if, ACTIONS 180),
     (anon_sym_for, ACTIONS 182), (anon_sym_AT, ACTIONS 143), (anon_sym_final, ACTIONS 145),
     (sym_void_type, ACTIONS 33), (anon_sym_var, ACTIONS 35), (sym_break_builtin, ACTIONS 147),
     (sym_assert_builtin, ACTIONS 149), (sym_rethrow_builtin, ACTIONS 151),
     (anon_sym_covariant, ACTIONS 153), (anon_sym_Function, ACTIONS 45),
     (anon_sym_get, ACTIONS 47), (anon_sym_set, ACTIONS 61), (anon_sym_new, ACTIONS 155),
     (sym_const_builtin, ACTIONS 157), (anon_sym_late, ACTIONS 67), (anon_sym_this, ACTIONS 159),
     (anon_sym_super, ACTIONS 161), (anon_sym_SLASH_SLASH, ACTIONS 3),
     (anon_sym_SLASH_STAR, ACTIONS 5), (anon_sym_SLASH_SLASH_SLASH, ACTIONS 7),
     (sym__block_comment, ACTIONS 9), (sym__documentation_block_comment, ACTIONS 11)]"

lemma row_ok_19: "table_row_ok 19 ts_parse_table_19"
  by (simp add: row_simps ts_parse_table_19_def)

definition ts_parse_table_20 :: table_row where
  "ts_parse_table_20 = [
     (sym__bool_literal, STATE 989), (sym__numeric_literal, STATE 989),
     (sym__literal, STATE 962), (sym_symbol_literal, STATE 989), (sym_true, STATE 900),
     (sym_false, STATE 900), (sym_string_literal, STATE 989),
     (sym__string_literal_double_quotes, STATE 627),
     (sym__string_literal_single_quotes, STATE 627),
     (sym__string_literal_double_quotes_multiple, STATE 627),
     (sym__string_literal_single_quotes_multiple, STATE 627),
     (sym__raw_string_literal_double_quotes, STATE 627),
     (sym__raw_string_literal_single_quotes, STATE 627),
     (sym__raw_string_literal_double_quotes_multiple, STATE 627),
     (sym__raw_string_literal_single_quotes_multiple, STATE 627), (sym_list_literal, STATE 989),
     (sym_set_or_map_literal, STATE 989), (sym_null_literal, STATE 989),
     (sym_record_literal, STATE 989), (sym__record_literal_no_const, STATE 924),
     (sym__expression, STATE 3203), (sym__real_expression, STATE 660),
     (sym_throw_expression, STATE 908), (sym_rethrow_expression, STATE 908),
     (sym_assignment_expression, STATE 908), (sym_assignable_expression, STATE 1940),
     (sym_lambda_expression, STATE 534), (sym_function_expression, STATE 962),
     (sym_if_null_expression, STATE 1477), (sym_conditional_expression, STATE 1477),
     (sym_logical_or_expression, STATE 1477), (sym_logical_and_expression, STATE 1477),
     (sym_equality_expression, STATE 1477), (sym_type_cast_expression, STATE 1477),
     (sym_type_test_expression, STATE 1477), (sym_relational_expression, STATE 1477),
     (sym_bitwise_or_expression, STATE 1477), (sym_bitwise_xor_expression, STATE 1477),
     (sym_bitwise_and_expression, STATE 1477), (sym_shift_expression, STATE 1477),
     (sym_additive_expression, STATE 1477), (sym_multiplicative_expression, STATE 1477),
     (sym__unary_expression, STATE 1121), (sym_unary_expression, STATE 1303),
     (sym__postfix_expression, STATE 1303), (sym_postfix_expression, STATE 1301),
     (sym_prefix_operator, STATE 431), (sym_negation_operator, STATE 1450),
     (sym__exclamation_operator, STATE 1451), (sym_tilde_operator, STATE 1385),
     (sym_await_expression, STATE 1302), (sym_new_expression, STATE 962),
     (sym_const_object_expression, STATE 962), (sym__primary, STATE 668),
     (sym_parenthesized_expression, STATE 962), (sym_constructor_invocation, STATE 643),
     (sym_constructor_tearoff, STATE 962), (sym_type_arguments, STATE 3200),
     (sym__statement, STATE 556), (sym_local_function_declaration, STATE 533),
     (sym_block, STATE 527), (sym_expression_statement, STATE 527),
     (sym_assert_statement, STATE 527), (sym_assertion, STATE 3380),
     (sym_switch_statement, STATE 527), (sym_switch_expression, STATE 962),
     (sym__parenthesized_pattern, STATE 3182), (sym_list_pattern, STATE 3182),
     (sym_map_pattern, STATE 3182), (sym_record_pattern, STATE 3182),
     (sym_object_pattern, STATE 3182), (sym_pattern_variable_declaration, STATE 3176),
     (sym__outer_pattern, STATE 3410), (sym_pattern_assignment, STATE 908),
     (sym_do_statement, STATE 527), (sym_break_statement, STATE 527),
     (sym_continue_statement, STATE 527), (sym_yield_statement, STATE 527),
     (sym_yield_each_statement, STATE 527), (sym_return_statement, STATE 527),
     (sym_try_statement, STATE 527), (sym__try_head, STATE 464), (sym_if_statement, STATE 527),
     (sym_while_statement, STATE 527), (sym_for_statement, STATE 527),
     (sym_annotation, STATE 1361), (sym__metadata, STATE 1059),
     (sym_type_parameters, STATE 2932), (sym_initialized_variable_definition, STATE 3176),
     (sym__declared_identifier, STATE 2667), (sym__final_const_var_or_type, STATE 3411),
     (sym__type, STATE 2530), (sym__type_not_function, STATE 1796),
     (sym__type_not_void_not_function, STATE 1896), (sym_function_type, STATE 1848),
     (aux_sym__function_type_tails, STATE 1605), (sym__function_type_tail, STATE 1704),
     (sym_record_type, STATE 1805), (sym__type_name, STATE 2004), (sym__var_or_type, STATE 2755),
     (sym_inferred_type, STATE 1771), (sym_function_signature, STATE 2368),
     (sym__formal_parameter_part, STATE 2339), (sym_formal_parameter_list, STATE 2020),
     (sym__strict_formal_parameter_list, STATE 2016),
     (sym_local_variable_declaration, STATE 542), (sym__covariant, STATE 1795),
     (sym__function_builtin_identifier, STATE 1463), (sym__get, STATE 2500),
     (sym__set, STATE 2500), (sym__new_builtin, STATE 2079), (sym_final_builtin, STATE 1764),
     (sym__late_builtin, STATE 1915), (sym_this, STATE 962), (sym_super, STATE 1337),
     (sym_comment, STATE 20), (sym_documentation_comment, STATE 20),
     (aux_sym_string_literal_repeat1, STATE 474), (aux_sym_block_repeat1, STATE 25),
     (aux_sym__metadata_repeat1, STATE 1308), (sym_identifier, ACTIONS 71),
     (anon_sym_POUND, ACTIONS 73), (sym_decimal_integer_literal, ACTIONS 75),
     (sym_hex_integer_literal, ACTIONS 77), (sym_decimal_floating_point_literal, ACTIONS 75),
     (anon_sym_true, ACTIONS 79), (anon_sym_false, ACTIONS 81), (anon_sym_DQUOTE, ACTIONS 83),
     (anon_sym_SQUOTE, ACTIONS 85), (anon_sym_DQUOTE_DQUOTE_DQUOTE, ACTIONS 87),
     (anon_sym_SQUOTE_SQUOTE_SQUOTE, ACTIONS 89), (anon_sym_r_DQUOTE, ACTIONS 91),
     (anon_sym_r_SQUOTE, ACTIONS 93), (anon_sym_r_DQUOTE_DQUOTE_DQUOTE, ACTIONS 95),
     (anon_sym_r_SQUOTE_SQUOTE_SQUOTE, ACTIONS 97), (anon_sym_LBRACE, ACTIONS 172),
     (anon_sym_RBRACE, ACTIONS 364), (anon_sym_LBRACK, ACTIONS 103),
     (anon_sym_null, ACTIONS 105), (anon_sym_LPAREN, ACTIONS 107), (anon_sym_throw, ACTIONS 109),
     (anon_sym_LT, ACTIONS 111), (sym_increment_operator, ACTIONS 113),
     (sym_minus_operator, ACTIONS 117), (anon_sym_BANG, ACTIONS 119),
     (anon_sym_TILDE, ACTIONS 121), (anon_sym_await, ACTIONS 176),
     (anon_sym_switch, ACTIONS 125), (anon_sym_do, ACTIONS 127), (anon_sym_while, ACTIONS 129),
     (anon_sym_continue, ACTIONS 131), (anon_sym_yield, ACTIONS 133),
     (anon_sym_return, ACTIONS 135), (anon_sym_try, ACTIONS 137), (anon_sym_if, ACTIONS 180),
     (anon_sym_for, ACTIONS 182), (anon_sym_AT, ACTIONS 143), (anon_sym_final, ACTIONS 145),
     (sym_void_type, ACTIONS 33), (anon_sym_var, ACTIONS 35), (sym_break_builtin, ACTIONS 147),
     (sym_assert_builtin, ACTIONS 149), (sym_rethrow_builtin, ACTIONS 151),
     (anon_sym_covariant, ACTIONS 153), (anon_sym_Function, ACTIONS 45),
     (anon_sym_get, ACTIONS 47), (anon_sym_set, ACTIONS 61), (anon_sym_new, ACTIONS 155),
     (sym_const_builtin, ACTIONS 157), (anon_sym_late, ACTIONS 67), (anon_sym_this, ACTIONS 159),
     (anon_sym_super, ACTIONS 161), (anon_sym_SLASH_SLASH, ACTIONS 3),
     (anon_sym_SLASH_STAR, ACTIONS 5), (anon_sym_SLASH_SLASH_SLASH, ACTIONS 7),
     (sym__block_comment, ACTIONS 9), (sym__documentation_block_comment, ACTIONS 11)]"

lemma row_ok_20: "table_row_ok 20 ts_parse_table_20"
  by (simp add: row_simps ts_parse_table_20_def)

definition ts_parse_table_21 :: table_row where
  "ts_parse_table_21 = [
     (sym__bool_literal, STATE 989), (sym__numeric_literal, STATE 989),
     (sym__literal, STATE 962), (sym_symbol_literal, STATE 989), (sym_true, STATE 900),
     (sym_false, STATE 900), (sym_string_literal, STATE 989),
     (sym__string_literal_double_quotes, STATE 627),
     (sym__string_literal_single_quotes, STATE 627),
     (sym__string_literal_double_quotes_multiple, STATE 627),
     (sym__string_literal_single_quotes_multiple, STATE 627),
     (sym__raw_string_literal_double_quotes, STATE 627),
     (sym__raw_string_literal_single_quotes, STATE 627),
     (sym__raw_string_literal_double_quotes_multiple, STATE 627),
     (sym__raw_string_literal_single_quotes_multiple, STATE 627), (sym_list_literal, STATE 989),
     (sym_set_or_map_literal, STATE 989), (sym_null_literal, STATE 989),
     (sym_record_literal, STATE 989), (sym__record_literal_no_const, STATE 924),
     (sym__expression, STATE 3203), (sym__real_expression, STATE 660),
     (sym_throw_expression, STATE 908), (sym_rethrow_expression, STATE 908),
     (sym_assignment_expression, STATE 908), (sym_assignable_expression, STATE 1940),
     (sym_lambda_expression, STATE 534), (sym_function_expression, STATE 962),
     (sym_if_null_expression, STATE 1477), (sym_conditional_expression, STATE 1477),
     (sym_logical_or_expression, STATE 1477), (sym_logical_and_expression, STATE 1477),
     (sym_equality_expression, STATE 1477), (sym_type_cast_expression, STATE 1477),
     (sym_type_test_expression, STATE 1477), (sym_relational_expression, STATE 1477),
     (sym_bitwise_or_expression, STATE 1477), (sym_bitwise_xor_expression, STATE 1477),
     (sym_bitwise_and_expression, STATE 1477), (sym_shift_expression, STATE 1477),
     (sym_additive_expression, STATE 1477), (sym_multiplicative_expression, STATE 1477),
     (sym__unary_expression, STATE 1121), (sym_unary_expression, STATE 1303),
     (sym__postfix_expression, STATE 1303), (sym_postfix_expression, STATE 1301),
     (sym_prefix_operator, STATE 431), (sym_negation_operator, STATE 1450),
     (sym__exclamation_operator, STATE 1451), (sym_tilde_operator, STATE 1385),
     (sym_await_expression, STATE 1302), (sym_new_expression, STATE 962),
     (sym_const_object_expression, STATE 962), (sym__primary, STATE 668),
     (sym_parenthesized_expression, STATE 962), (sym_constructor_invocation, STATE 643),
     (sym_constructor_tearoff, STATE 962), (sym_type_arguments, STATE 3200),
     (sym__statement, STATE 556), (sym_local_function_declaration, STATE 533),
     (sym_block, STATE 527), (sym_expression_statement, STATE 527),
     (sym_assert_statement, STATE 527), (sym_assertion, STATE 3380),
     (sym_switch_statement, STATE 527), (sym_switch_expression, STATE 962),
     (sym__parenthesized_pattern, STATE 3182), (sym_list_pattern, STATE 3182),
     (sym_map_pattern, STATE 3182), (sym_record_pattern, STATE 3182),
     (sym_object_pattern, STATE 3182), (sym_pattern_variable_declaration, STATE 3176),
     (sym__outer_pattern, STATE 3410), (sym_pattern_assignment, STATE 908),
     (sym_do_statement, STATE 527), (sym_break_statement, STATE 527),
     (sym_continue_statement, STATE 527), (sym_yield_statement, STATE 527),
     (sym_yield_each_statement, STATE 527), (sym_return_statement, STATE 527),
     (sym_try_statement, STATE 527), (sym__try_head, STATE 464), (sym_if_statement, STATE 527),
     (sym_while_statement, STATE 527), (sym_for_statement, STATE 527),
     (sym_annotation, STATE 1361), (sym__metadata, STATE 1059),
     (sym_type_parameters, STATE 2932), (sym_initialized_variable_definition, STATE 3176),
     (sym__declared_identifier, STATE 2667), (sym__final_const_var_or_type, STATE 3411),
     (sym__type, STATE 2530), (sym__type_not_function, STATE 1796),
     (sym__type_not_void_not_function, STATE 1896), (sym_function_type, STATE 1848),
     (aux_sym__function_type_tails, STATE 1605), (sym__function_type_tail, STATE 1704),
     (sym_record_type, STATE 1805), (sym__type_name, STATE 2004), (sym__var_or_type, STATE 2755),
     (sym_inferred_type, STATE 1771), (sym_function_signature, STATE 2368),
     (sym__formal_parameter_part, STATE 2339), (sym_formal_parameter_list, STATE 2020),
     (sym__strict_formal_parameter_list, STATE 2016),
     (sym_local_variable_declaration, STATE 542), (sym__covariant, STATE 1795),
     (sym__function_builtin_identifier, STATE 1463), (sym__get, STATE 2500),
     (sym__set, STATE 2500), (sym__new_builtin, STATE 2079), (sym_final_builtin, STATE 1764),
     (sym__late_builtin, STATE 1915), (sym_this, STATE 962), (sym_super, STATE 1337),
     (sym_comment, STATE 21), (sym_documentation_comment, STATE 21),
     (aux_sym_string_literal_repeat1, STATE 474), (aux_sym_block_repeat1, STATE 16),
     (aux_sym__metadata_repeat1, STATE 1308), (sym_identifier, ACTIONS 71),
     (anon_sym_POUND, ACTIONS 73), (sym_decimal_integer_literal, ACTIONS 75),
     (sym_hex_integer_literal, ACTIONS 77), (sym_decimal_floating_point_literal, ACTIONS 75),
     (anon_sym_true, ACTIONS 79), (anon_sym_false, ACTIONS 81), (anon_sym_DQUOTE, ACTIONS 83),
     (anon_sym_SQUOTE, ACTIONS 85), (anon_sym_DQUOTE_DQUOTE_DQUOTE, ACTIONS 87),
     (anon_sym_SQUOTE_SQUOTE_SQUOTE, ACTIONS 89), (anon_sym_r_DQUOTE, ACTIONS 91),
     (anon_sym_r_SQUOTE, ACTIONS 93), (anon_sym_r_DQUOTE_DQUOTE_DQUOTE, ACTIONS 95),
     (anon_sym_r_SQUOTE_SQUOTE_SQUOTE, ACTIONS 97), (anon_sym_LBRACE, ACTIONS 172),
     (anon_sym_RBRACE, ACTIONS 366), (anon_sym_LBRACK, ACTIONS 103),
     (anon_sym_null, ACTIONS 105), (anon_sym_LPAREN, ACTIONS 107), (anon_sym_throw, ACTIONS 109),
     (anon_sym_LT, ACTIONS 111), (sym_increment_operator, ACTIONS 113),
     (sym_minus_operator, ACTIONS 117), (anon_sym_BANG, ACTIONS 119),
     (anon_sym_TILDE, ACTIONS 121), (anon_sym_await, ACTIONS 176),
     (anon_sym_switch, ACTIONS 125), (anon_sym_do, ACTIONS 127), (anon_sym_while, ACTIONS 129),
     (anon_sym_continue, ACTIONS 131), (anon_sym_yield, ACTIONS 133),
     (anon_sym_return, ACTIONS 135), (anon_sym_try, ACTIONS 137), (anon_sym_if, ACTIONS 180),
     (anon_sym_for, ACTIONS 182), (anon_sym_AT, ACTIONS 143), (anon_sym_final, ACTIONS 145),
     (sym_void_type, ACTIONS 33), (anon_sym_var, ACTIONS 35), (sym_break_builtin, ACTIONS 147),
     (sym_assert_builtin, ACTIONS 149), (sym_rethrow_builtin, ACTIONS 151),
     (anon_sym_covariant, ACTIONS 153), (anon_sym_Function, ACTIONS 45),
     (anon_sym_get, ACTIONS 47), (anon_sym_set, ACTIONS 61), (anon_sym_new, ACTIONS 155),
     (sym_const_builtin, ACTIONS 157), (anon_sym_late, ACTIONS 67), (anon_sym_this, ACTIONS 159),
     (anon_sym_super, ACTIONS 161), (anon_sym_SLASH_SLASH, ACTIONS 3),
     (anon_sym_SLASH_STAR, ACTIONS 5), (anon_sym_SLASH_SLASH_SLASH, ACTIONS 7),
     (sym__block_comment, ACTIONS 9), (sym__documentation_block_comment, ACTIONS 11)]"

lemma row_ok_21: "table_row_ok 21 ts_parse_table_21"
  by (simp add: row_simps ts_parse_table_21_def)

definition ts_parse_table_22 :: table_row where
  "ts_parse_table_22 = [
     (sym__bool_literal, STATE 989), (sym__numeric_literal, STATE 989),
     (sym__literal, STATE 962), (sym_symbol_literal, STATE 989), (sym_true, STATE 900),
     (sym_false, STATE 900), (sym_string_literal, STATE 989),
     (sym__string_literal_double_quotes, STATE 627),
     (sym__string_literal_single_quotes, STATE 627),
     (sym__string_literal_double_quotes_multiple, STATE 627),
     (sym__string_literal_single_quotes_multiple, STATE 627),
     (sym__raw_string_literal_double_quotes, STATE 627),
     (sym__raw_string_literal_single_quotes, STATE 627),
     (sym__raw_string_literal_double_quotes_multiple, STATE 627),
     (sym__raw_string_literal_single_quotes_multiple, STATE 627), (sym_list_literal, STATE 989),
     (sym_set_or_map_literal, STATE 989), (sym_null_literal, STATE 989),
     (sym_record_literal, STATE 989), (sym__record_literal_no_const, STATE 924),
     (sym__expression, STATE 3203), (sym__real_expression, STATE 660),
     (sym_throw_expression, STATE 908), (sym_rethrow_expression, STATE 908),
     (sym_assignment_expression, STATE 908), (sym_assignable_expression, STATE 1940),
     (sym_lambda_expression, STATE 534), (sym_function_expression, STATE 962),
     (sym_if_null_expression, STATE 1477), (sym_conditional_expression, STATE 1477),
     (sym_logical_or_expression, STATE 1477), (sym_logical_and_expression, STATE 1477),
     (sym_equality_expression, STATE 1477), (sym_type_cast_expression, STATE 1477),
     (sym_type_test_expression, STATE 1477), (sym_relational_expression, STATE 1477),
     (sym_bitwise_or_expression, STATE 1477), (sym_bitwise_xor_expression, STATE 1477),
     (sym_bitwise_and_expression, STATE 1477), (sym_shift_expression, STATE 1477),
     (sym_additive_expression, STATE 1477), (sym_multiplicative_expression, STATE 1477),
     (sym__unary_expression, STATE 1121), (sym_unary_expression, STATE 1303),
     (sym__postfix_expression, STATE 1303), (sym_postfix_expression, STATE 1301),
     (sym_prefix_operator, STATE 431), (sym_negation_operator, STATE 1450),
     (sym__exclamation_operator, STATE 1451), (sym_tilde_operator, STATE 1385),
     (sym_await_expression, STATE 1302), (sym_new_expression, STATE 962),
     (sym_const_object_expression, STATE 962), (sym__primary, STATE 668),
     (sym_parenthesized_expression, STATE 962), (sym_constructor_invocation, STATE 643),
     (sym_constructor_tearoff, STATE 962), (sym_type_arguments, STATE 3200),
     (sym__statement, STATE 556), (sym_local_function_declaration, STATE 533),
     (sym_block, STATE 527), (sym_expression_statement, STATE 527),
     (sym_assert_statement, STATE 527), (sym_assertion, STATE 3380),
     (sym_switch_statement, STATE 527), (sym_switch_expression, STATE 962),
     (sym__parenthesized_pattern, STATE 3182), (sym_list_pattern, STATE 3182),
     (sym_map_pattern, STATE 3182), (sym_record_pattern, STATE 3182),
     (sym_object_pattern, STATE 3182), (sym_pattern_variable_declaration, STATE 3176),
     (sym__outer_pattern, STATE 3410), (sym_pattern_assignment, STATE 908),
     (sym_do_statement, STATE 527), (sym_break_statement, STATE 527),
     (sym_continue_statement, STATE 527), (sym_yield_statement, STATE 527),
     (sym_yield_each_statement, STATE 527), (sym_return_statement, STATE 527),
     (sym_try_statement, STATE 527), (sym__try_head, STATE 464), (sym_if_statement, STATE 527),
     (sym_while_statement, STATE 527), (sym_for_statement, STATE 527),
     (sym_annotation, STATE 1361), (sym__metadata, STATE 1059),
     (sym_type_parameters, STATE 2932), (sym_initialized_variable_definition, STATE 3176),
     (sym__declared_identifier, STATE 2667), (sym__final_const_var_or_type, STATE 3411),
     (sym__type, STATE 2530), (sym__type_not_function, STATE 1796),
     (sym__type_not_void_not_function, STATE 1896), (sym_function_type, STATE 1848),
     (aux_sym__function_type_tails, STATE 1605), (sym__function_type_tail, STATE 1704),
     (sym_record_type, STATE 1805), (sym__type_name, STATE 2004), (sym__var_or_type, STATE 2755),
     (sym_inferred_type, STATE 1771), (sym_function_signature, STATE 2368),
     (sym__formal_parameter_part, STATE 2339), (sym_formal_parameter_list, STATE 2020),
     (sym__strict_formal_parameter_list, STATE 2016),
     (sym_local_variable_declaration, STATE 542), (sym__covariant, STATE 1795),
     (sym__function_builtin_identifier, STATE 1463), (sym__get, STATE 2500),
     (sym__set, STATE 2500), (sym__new_builtin, STATE 2079), (sym_final_builtin, STATE 1764),
     (sym__late_builtin, STATE 1915), (sym_this, STATE 962), (sym_super, STATE 1337),
     (sym_comment, STATE 22), (sym_documentation_comment, STATE 22),
     (aux_sym_string_literal_repeat1, STATE 474), (aux_sym_block_repeat1, STATE 26),
     (aux_sym__metadata_repeat1, STATE 1308), (sym_identifier, ACTIONS 71),
     (anon_sym_POUND, ACTIONS 73), (sym_decimal_integer_literal, ACTIONS 75),
     (sym_hex_integer_literal, ACTIONS 77), (sym_decimal_floating_point_literal, ACTIONS 75),
     (anon_sym_true, ACTIONS 79), (anon_sym_false, ACTIONS 81), (anon_sym_DQUOTE, ACTIONS 83),
     (anon_sym_SQUOTE, ACTIONS 85), (anon_sym_DQUOTE_DQUOTE_DQUOTE, ACTIONS 87),
     (anon_sym_SQUOTE_SQUOTE_SQUOTE, ACTIONS 89), (anon_sym_r_DQUOTE, ACTIONS 91),
     (anon_sym_r_SQUOTE, ACTIONS 93), (anon_sym_r_DQUOTE_DQUOTE_DQUOTE, ACTIONS 95),
     (anon_sym_r_SQUOTE_SQUOTE_SQUOTE, ACTIONS 97), (anon_sym_LBRACE, ACTIONS 172),
     (anon_sym_RBRACE, ACTIONS 358), (anon_sym_LBRACK, ACTIONS 103),
     (anon_sym_null, ACTIONS 105), (anon_sym_LPAREN, ACTIONS 107), (anon_sym_throw, ACTIONS 109),
     (anon_sym_LT, ACTIONS 111), (sym_increment_operator, ACTIONS 113),
     (sym_minus_operator, ACTIONS 117), (anon_sym_BANG, ACTIONS 119),
     (anon_sym_TILDE, ACTIONS 121), (anon_sym_await, ACTIONS 176),
     (anon_sym_switch, ACTIONS 125), (anon_sym_do, ACTIONS 127), (anon_sym_while, ACTIONS 129),
     (anon_sym_continue, ACTIONS 131), (anon_sym_yield, ACTIONS 133),
     (anon_sym_return, ACTIONS 135), (anon_sym_try, ACTIONS 137), (anon_sym_if, ACTIONS 180),
     (anon_sym_for, ACTIONS 182), (anon_sym_AT, ACTIONS 143), (anon_sym_final, ACTIONS 145),
     (sym_void_type, ACTIONS 33), (anon_sym_var, ACTIONS 35), (sym_break_builtin, ACTIONS 147),
     (sym_assert_builtin, ACTIONS 149), (sym_rethrow_builtin, ACTIONS 151),
     (anon_sym_covariant, ACTIONS 153), (anon_sym_Function, ACTIONS 45),
     (anon_sym_get, ACTIONS 47), (anon_sym_set, ACTIONS 61), (anon_sym_new, ACTIONS 155),
     (sym_const_builtin, ACTIONS 157), (anon_sym_late, ACTIONS 67), (anon_sym_this, ACTIONS 159),
     (anon_sym_super, ACTIONS 161), (anon_sym_SLASH_SLASH, ACTIONS 3),
     (anon_sym_SLASH_STAR, ACTIONS 5), (anon_sym_SLASH_SLASH_SLASH, ACTIONS 7),
     (sym__block_comment, ACTIONS 9), (sym__documentation_block_comment, ACTIONS 11)]"

lemma row_ok_22: "table_row_ok 22 ts_parse_table_22"
  by (simp add: row_simps ts_parse_table_22_def)

definition ts_parse_table_23 :: table_row where
  "ts_parse_table_23 = [
     (sym__bool_literal, STATE 989), (sym__numeric_literal, STATE 989),
     (sym__literal, STATE 962), (sym_symbol_literal, STATE 989), (sym_true, STATE 900),
     (sym_false, STATE 900), (sym_string_literal, STATE 989),
     (sym__string_literal_double_quotes, STATE 627),
     (sym__string_literal_single_quotes, STATE 627),
     (sym__string_literal_double_quotes_multiple, STATE 627),
     (sym__string_literal_single_quotes_multiple, STATE 627),
     (sym__raw_string_literal_double_quotes, STATE 627),
     (sym__raw_string_literal_single_quotes, STATE 627),
     (sym__raw_string_literal_double_quotes_multiple, STATE 627),
     (sym__raw_string_literal_single_quotes_multiple, STATE 627), (sym_list_literal, STATE 989),
     (sym_set_or_map_literal, STATE 989), (sym_null_literal, STATE 989),
     (sym_record_literal, STATE 989), (sym__record_literal_no_const, STATE 924),
     (sym__expression, STATE 3203), (sym__real_expression, STATE 660),
     (sym_throw_expression, STATE 908), (sym_rethrow_expression, STATE 908),
     (sym_assignment_expression, STATE 908), (sym_assignable_expression, STATE 1940),
     (sym_lambda_expression, STATE 534), (sym_function_expression, STATE 962),
     (sym_if_null_expression, STATE 1477), (sym_conditional_expression, STATE 1477),
     (sym_logical_or_expression, STATE 1477), (sym_logical_and_expression, STATE 1477),
     (sym_equality_expression, STATE 1477), (sym_type_cast_expression, STATE 1477),
     (sym_type_test_expression, STATE 1477), (sym_relational_expression, STATE 1477),
     (sym_bitwise_or_expression, STATE 1477), (sym_bitwise_xor_expression, STATE 1477),
     (sym_bitwise_and_expression, STATE 1477), (sym_shift_expression, STATE 1477),
     (sym_additive_expression, STATE 1477), (sym_multiplicative_expression, STATE 1477),
     (sym__unary_expression, STATE 1121), (sym_unary_expression, STATE 1303),
     (sym__postfix_expression, STATE 1303), (sym_postfix_expression, STATE 1301),
     (sym_prefix_operator, STATE 431), (sym_negation_operator, STATE 1450),
     (sym__exclamation_operator, STATE 1451), (sym_tilde_operator, STATE 1385),
     (sym_await_expression, STATE 1302), (sym_new_expression, STATE 962),
     (sym_const_object_expression, STATE 962), (sym__primary, STATE 668),
     (sym_parenthesized_expression, STATE 962), (sym_constructor_invocation, STATE 643),
     (sym_constructor_tearoff, STATE 962), (sym_type_arguments, STATE 3200),
     (sym__statement, STATE 556), (sym_local_function_declaration, STATE 533),
     (sym_block, STATE 527), (sym_expression_statement, STATE 527),
     (sym_assert_statement, STATE 527), (sym_assertion, STATE 3380),
     (sym_switch_statement, STATE 527), (sym_switch_expression, STATE 962),
     (sym__parenthesized_pattern, STATE 3182), (sym_list_pattern, STATE 3182),
     (sym_map_pattern, STATE 3182), (sym_record_pattern, STATE 3182),
     (sym_object_pattern, STATE 3182), (sym_pattern_variable_declaration, STATE 3176),
     (sym__outer_pattern, STATE 3410), (sym_pattern_assignment, STATE 908),
     (sym_do_statement, STATE 527), (sym_break_statement, STATE 527),
     (sym_continue_statement, STATE 527), (sym_yield_statement, STATE 527),
     (sym_yield_each_statement, STATE 527), (sym_return_statement, STATE 527),
     (sym_try_statement, STATE 527), (sym__try_head, STATE 464), (sym_if_statement, STATE 527),
     (sym_while_statement, STATE 527), (sym_for_statement, STATE 527),
     (sym_annotation, STATE 1361), (sym__metadata, STATE 1059),
     (sym_type_parameters, STATE 2932), (sym_initialized_variable_definition, STATE 3176),
     (sym__declared_identifier, STATE 2667), (sym__final_const_var_or_type, STATE 3411),
     (sym__type, STATE 2530), (sym__type_not_function, STATE 1796),
     (sym__type_not_void_not_function, STATE 1896), (sym_function_type, STATE 1848),
     (aux_sym__function_type_tails, STATE 1605), (sym__function_type_tail, STATE 1704),
     (sym_record_type, STATE 1805), (sym__type_name, STATE 2004), (sym__var_or_type, STATE 2755),
     (sym_inferred_type, STATE 1771), (sym_function_signature, STATE 2368),
     (sym__formal_parameter_part, STATE 2339), (sym_formal_parameter_list, STATE 2020),
     (sym__strict_formal_parameter_list, STATE 2016),
     (sym_local_variable_declaration, STATE 542), (sym__covariant, STATE 1795),
     (sym__function_builtin_identifier, STATE 1463), (sym__get, STATE 2500),
     (sym__set, STATE 2500), (sym__new_builtin, STATE 2079), (sym_final_builtin, STATE 1764),
     (sym__late_builtin, STATE 1915), (sym_this, STATE 962), (sym_super, STATE 1337),
     (sym_comment, STATE 23), (sym_documentation_comment, STATE 23),
     (aux_sym_string_literal_repeat1, STATE 474), (aux_sym_block_repeat1, STATE 13),
     (aux_sym__metadata_repeat1, STATE 1308), (sym_identifier, ACTIONS 71),
     (anon_sym_POUND, ACTIONS 73), (sym_decimal_integer_literal, ACTIONS 75),
     (sym_hex_integer_literal, ACTIONS 77), (sym_decimal_floating_point_literal, ACTIONS 75),
     (anon_sym_true, ACTIONS 79), (anon_sym_false, ACTIONS 81), (anon_sym_DQUOTE, ACTIONS 83),
     (anon_sym_SQUOTE, ACTIONS 85), (anon_sym_DQUOTE_DQUOTE_DQUOTE, ACTIONS 87),
     (anon_sym_SQUOTE_SQUOTE_SQUOTE, ACTIONS 89), (anon_sym_r_DQUOTE, ACTIONS 91),
     (anon_sym_r_SQUOTE, ACTIONS 93), (anon_sym_r_DQUOTE_DQUOTE_DQUOTE, ACTIONS 95),
     (anon_sym_r_SQUOTE_SQUOTE_SQUOTE, ACTIONS 97), (anon_sym_LBRACE, ACTIONS 172),
     (anon_sym_RBRACE, ACTIONS 368), (anon_sym_LBRACK, ACTIONS 103),
     (anon_sym_null, ACTIONS 105), (anon_sym_LPAREN, ACTIONS 107), (anon_sym_throw, ACTIONS 109),
     (anon_sym_LT, ACTIONS 111), (sym_increment_operator, ACTIONS 113),
     (sym_minus_operator, ACTIONS 117), (anon_sym_BANG, ACTIONS 119),
     (anon_sym_TILDE, ACTIONS 121), (anon_sym_await, ACTIONS 176),
     (anon_sym_switch, ACTIONS 125), (anon_sym_do, ACTIONS 127), (anon_sym_while, ACTIONS 129),
     (anon_sym_continue, ACTIONS 131), (anon_sym_yield, ACTIONS 133),
     (anon_sym_return, ACTIONS 135), (anon_sym_try, ACTIONS 137), (anon_sym_if, ACTIONS 180),
     (anon_sym_for, ACTIONS 182), (anon_sym_AT, ACTIONS 143), (anon_sym_final, ACTIONS 145),
     (sym_void_type, ACTIONS 33), (anon_sym_var, ACTIONS 35), (sym_break_builtin, ACTIONS 147),
     (sym_assert_builtin, ACTIONS 149), (sym_rethrow_builtin, ACTIONS 151),
     (anon_sym_covariant, ACTIONS 153), (anon_sym_Function, ACTIONS 45),
     (anon_sym_get, ACTIONS 47), (anon_sym_set, ACTIONS 61), (anon_sym_new, ACTIONS 155),
     (sym_const_builtin, ACTIONS 157), (anon_sym_late, ACTIONS 67), (anon_sym_this, ACTIONS 159),
     (anon_sym_super, ACTIONS 161), (anon_sym_SLASH_SLASH, ACTIONS 3),
     (anon_sym_SLASH_STAR, ACTIONS 5), (anon_sym_SLASH_SLASH_SLASH, ACTIONS 7),
     (sym__block_comment, ACTIONS 9), (sym__documentation_block_comment, ACTIONS 11)]"

lemma row_ok_23: "table_row_ok 23 ts_parse_table_23"
  by (simp add: row_simps ts_parse_table_23_def)

definition ts_parse_table_24 :: table_row where
  "ts_parse_table_24 = [
     (sym__bool_literal, STATE 989), (sym__numeric_literal, STATE 989),
     (sym__literal, STATE 962), (sym_symbol_literal, STATE 989), (sym_true, STATE 900),
     (sym_false, STATE 900), (sym_string_literal, STATE 989),
     (sym__string_literal_double_quotes, STATE 627),
     (sym__string_literal_single_quotes, STATE 627),
     (sym__string_literal_double_quotes_multiple, STATE 627),
     (sym__string_literal_single_quotes_multiple, STATE 627),
     (sym__raw_string_literal_double_quotes, STATE 627),
     (sym__raw_string_literal_single_quotes, STATE 627),
     (sym__raw_string_literal_double_quotes_multiple, STATE 627),
     (sym__raw_string_literal_single_quotes_multiple, STATE 627), (sym_list_literal, STATE 989),
     (sym_set_or_map_literal, STATE 989), (sym_null_literal, STATE 989),
     (sym_record_literal, STATE 989), (sym__record_literal_no_const, STATE 924),
     (sym__expression, STATE 3203), (sym__real_expression, STATE 660),
     (sym_throw_expression, STATE 908), (sym_rethrow_expression, STATE 908),
     (sym_assignment_expression, STATE 908), (sym_assignable_expression, STATE 1940),
     (sym_lambda_expression, STATE 534), (sym_function_expression, STATE 962),
     (sym_if_null_expression, STATE 1477), (sym_conditional_expression, STATE 1477),
     (sym_logical_or_expression, STATE 1477), (sym_logical_and_expression, STATE 1477),
     (sym_equality_expression, STATE 1477), (sym_type_cast_expression, STATE 1477),
     (sym_type_test_expression, STATE 1477), (sym_relational_expression, STATE 1477),
     (sym_bitwise_or_expression, STATE 1477), (sym_bitwise_xor_expression, STATE 1477),
     (sym_bitwise_and_expression, STATE 1477), (sym_shift_expression, STATE 1477),
     (sym_additive_expression, STATE 1477), (sym_multiplicative_expression, STATE 1477),
     (sym__unary_expression, STATE 1121), (sym_unary_expression, STATE 1303),
     (sym__postfix_expression, STATE 1303), (sym_postfix_expression, STATE 1301),
     (sym_prefix_operator, STATE 431), (sym_negation_operator, STATE 1450),
     (sym__exclamation_operator, STATE 1451), (sym_tilde_operator, STATE 1385),
     (sym_await_expression, STATE 1302), (sym_new_expression, STATE 962),
     (sym_const_object_expression, STATE 962), (sym__primary, STATE 668),
     (sym_parenthesized_expression, STATE 962), (sym_constructor_invocation, STATE 643),
     (sym_constructor_tearoff, STATE 962), (sym_type_arguments, STATE 3200),
     (sym__statement, STATE 556), (sym_local_function_declaration, STATE 533),
     (sym_block, STATE 527), (sym_expression_statement, STATE 527),
     (sym_assert_statement, STATE 527), (sym_assertion, STATE 3380),
     (sym_switch_statement, STATE 527), (sym_switch_expression, STATE 962),
     (sym__parenthesized_pattern, STATE 3182), (sym_list_pattern, STATE 3182),
     (sym_map_pattern, STATE 3182), (sym_record_pattern, STATE 3182),
     (sym_object_pattern, STATE 3182), (sym_pattern_variable_declaration, STATE 3176),
     (sym__outer_pattern, STATE 3410), (sym_pattern_assignment, STATE 908),
     (sym_do_statement, STATE 527), (sym_break_statement, STATE 527),
     (sym_continue_statement, STATE 527), (sym_yield_statement, STATE 527),
     (sym_yield_each_statement, STATE 527), (sym_return_statement, STATE 527),
     (sym_try_statement, STATE 527), (sym__try_head, STATE 464), (sym_if_statement, STATE 527),
     (sym_while_statement, STATE 527), (sym_for_statement, STATE 527),
     (sym_annotation, STATE 1361), (sym__metadata, STATE 1059),
     (sym_type_parameters, STATE 2932), (sym_initialized_variable_definition, STATE 3176),
     (sym__declared_identifier, STATE 2667), (sym__final_const_var_or_type, STATE 3411),
     (sym__type, STATE 2530), (sym__type_not_function, STATE 1796),
     (sym__type_not_void_not_function, STATE 1896), (sym_function_type, STATE 1848),
     (aux_sym__function_type_tails, STATE 1605), (sym__function_type_tail, STATE 1704),
     (sym_record_type, STATE 1805), (sym__type_name, STATE 2004), (sym__var_or_type, STATE 2755),
     (sym_inferred_type, STATE 1771), (sym_function_signature, STATE 2368),
     (sym__formal_parameter_part, STATE 2339), (sym_formal_parameter_list, STATE 2020),
     (sym__strict_formal_parameter_list, STATE 2016),
     (sym_local_variable_declaration, STATE 542), (sym__covariant, STATE 1795),
     (sym__function_builtin_identifier, STATE 1463), (sym__get, STATE 2500),
     (sym__set, STATE 2500), (sym__new_builtin, STATE 2079), (sym_final_builtin, STATE 1764),
     (sym__late_builtin, STATE 1915), (sym_this, STATE 962), (sym_super, STATE 1337),
     (sym_comment, STATE 24), (sym_documentation_comment, STATE 24),
     (aux_sym_string_literal_repeat1, STATE 474), (aux_sym_block_repeat1, STATE 13),
     (aux_sym__metadata_repeat1, STATE 1308), (sym_identifier, ACTIONS 71),
     (anon_sym_POUND, ACTIONS 73), (sym_decimal_integer_literal, ACTIONS 75),
     (sym_hex_integer_literal, ACTIONS 77), (sym_decimal_floating_point_literal, ACTIONS 75),
     (anon_sym_true, ACTIONS 79), (anon_sym_false, ACTIONS 81), (anon_sym_DQUOTE, ACTIONS 83),
     (anon_sym_SQUOTE, ACTIONS 85), (anon_sym_DQUOTE_DQUOTE_DQUOTE, ACTIONS 87),
     (anon_sym_SQUOTE_SQUOTE_SQUOTE, ACTIONS 89), (anon_sym_r_DQUOTE, ACTIONS 91),
     (anon_sym_r_SQUOTE, ACTIONS 93), (anon_sym_r_DQUOTE_DQUOTE_DQUOTE, ACTIONS 95),
     (anon_sym_r_SQUOTE_SQUOTE_SQUOTE, ACTIONS 97), (anon_sym_LBRACE, ACTIONS 172),
     (anon_sym_RBRACE, ACTIONS 370), (anon_sym_LBRACK, ACTIONS 103),
     (anon_sym_null, ACTIONS 105), (anon_sym_LPAREN, ACTIONS 107), (anon_sym_throw, ACTIONS 109),
     (anon_sym_LT, ACTIONS 111), (sym_increment_operator, ACTIONS 113),
     (sym_minus_operator, ACTIONS 117), (anon_sym_BANG, ACTIONS 119),
     (anon_sym_TILDE, ACTIONS 121), (anon_sym_await, ACTIONS 176),
     (anon_sym_switch, ACTIONS 125), (anon_sym_do, ACTIONS 127), (anon_sym_while, ACTIONS 129),
     (anon_sym_continue, ACTIONS 131), (anon_sym_yield, ACTIONS 133),
     (anon_sym_return, ACTIONS 135), (anon_sym_try, ACTIONS 137), (anon_sym_if, ACTIONS 180),
     (anon_sym_for, ACTIONS 182), (anon_sym_AT, ACTIONS 143), (anon_sym_final, ACTIONS 145),
     (sym_void_type, ACTIONS 33), (anon_sym_var, ACTIONS 35), (sym_break_builtin, ACTIONS 147),
     (sym_assert_builtin, ACTIONS 149), (sym_rethrow_builtin, ACTIONS 151),
     (anon_sym_covariant, ACTIONS 153), (anon_sym_Function, ACTIONS 45),
     (anon_sym_get, ACTIONS 47), (anon_sym_set, ACTIONS 61), (anon_sym_new, ACTIONS 155),
     (sym_const_builtin, ACTIONS 157), (anon_sym_late, ACTIONS 67), (anon_sym_this, ACTIONS 159),
     (anon_sym_super, ACTIONS 161), (anon_sym_SLASH_SLASH, ACTIONS 3),
     (anon_sym_SLASH_STAR, ACTIONS 5), (anon_sym_SLASH_SLASH_SLASH, ACTIONS 7),
     (sym__block_comment, ACTIONS 9), (sym__documentation_block_comment, ACTIONS 11)]"

lemma row_ok_24: "table_row_ok 24 ts_parse_table_24"
  by (simp add: row_simps ts_parse_table_24_def)

definition ts_parse_table_25 :: table_row where
  "ts_parse_table_25 = [
     (sym__bool_literal, STATE 989), (sym__numeric_literal, STATE 989),
     (sym__literal, STATE 962), (sym_symbol_literal, STATE 989), (sym_true, STATE 900),
     (sym_false, STATE 900), (sym_string_literal, STATE 989),
     (sym__string_literal_double_quotes, STATE 627),
     (sym__string_literal_single_quotes, STATE 627),
     (sym__string_literal_double_quotes_multiple, STATE 627),
     (sym__string_literal_single_quotes_multiple, STATE 627),
     (sym__raw_string_literal_double_quotes, STATE 627),
     (sym__raw_string_literal_single_quotes, STATE 627),
     (sym__raw_string_literal_double_quotes_multiple, STATE 627),
     (sym__raw_string_literal_single_quotes_multiple, STATE 627), (sym_list_literal, STATE 989),
     (sym_set_or_map_literal, STATE 989), (sym_null_literal, STATE 989),
     (sym_record_literal, STATE 989), (sym__record_literal_no_const, STATE 924),
     (sym__expression, STATE 3203), (sym__real_expression, STATE 660),
     (sym_throw_expression, STATE 908), (sym_rethrow_expression, STATE 908),
     (sym_assignment_expression, STATE 908), (sym_assignable_expression, STATE 1940),
     (sym_lambda_expression, STATE 534), (sym_function_expression, STATE 962),
     (sym_if_null_expression, STATE 1477), (sym_conditional_expression, STATE 1477),
     (sym_logical_or_expression, STATE 1477), (sym_logical_and_expression, STATE 1477),
     (sym_equality_expression, STATE 1477), (sym_type_cast_expression, STATE 1477),
     (sym_type_test_expression, STATE 1477), (sym_relational_expression, STATE 1477),
     (sym_bitwise_or_expression, STATE 1477), (sym_bitwise_xor_expression, STATE 1477),
     (sym_bitwise_and_expression, STATE 1477), (sym_shift_expression, STATE 1477),
     (sym_additive_expression, STATE 1477), (sym_multiplicative_expression, STATE 1477),
     (sym__unary_expression, STATE 1121), (sym_unary_expression, STATE 1303),
     (sym__postfix_expression, STATE 1303), (sym_postfix_expression, STATE 1301),
     (sym_prefix_operator, STATE 431), (sym_negation_operator, STATE 1450),
     (sym__exclamation_operator, STATE 1451), (sym_tilde_operator, STATE 1385),
     (sym_await_expression, STATE 1302), (sym_new_expression, STATE 962),
     (sym_const_object_expression, STATE 962), (sym__primary, STATE 668),
     (sym_parenthesized_expression, STATE 962), (sym_constructor_invocation, STATE 643),
     (sym_constructor_tearoff, STATE 962), (sym_type_arguments, STATE 3200),
     (sym__statement, STATE 556), (sym_local_function_declaration, STATE 533),
     (sym_block, STATE 527), (sym_expression_statement, STATE 527),
     (sym_assert_statement, STATE 527), (sym_assertion, STATE 3380),
     (sym_switch_statement, STATE 527), (sym_switch_expression, STATE 962),
     (sym__parenthesized_pattern, STATE 3182), (sym_list_pattern, STATE 3182),
     (sym_map_pattern, STATE 3182), (sym_record_pattern, STATE 3182),
     (sym_object_pattern, STATE 3182), (sym_pattern_variable_declaration, STATE 3176),
     (sym__outer_pattern, STATE 3410), (sym_pattern_assignment, STATE 908),
     (sym_do_statement, STATE 527), (sym_break_statement, STATE 527),
     (sym_continue_statement, STATE 527), (sym_yield_statement, STATE 527),
     (sym_yield_each_statement, STATE 527), (sym_return_statement, STATE 527),
     (sym_try_statement, STATE 527), (sym__try_head, STATE 464), (sym_if_statement, STATE 527),
     (sym_while_statement, STATE 527), (sym_for_statement, STATE 527),
     (sym_annotation, STATE 1361), (sym__metadata, STATE 1059),
     (sym_type_parameters, STATE 2932), (sym_initialized_variable_definition, STATE 3176),
     (sym__declared_identifier, STATE 2667), (sym__final_const_var_or_type, STATE 3411),
     (sym__type, STATE 2530), (sym__type_not_function, STATE 1796),
     (sym__type_not_void_not_function, STATE 1896), (sym_function_type, STATE 1848),
     (aux_sym__function_type_tails, STATE 1605), (sym__function_type_tail, STATE 1704),
     (sym_record_type, STATE 1805), (sym__type_name, STATE 2004), (sym__var_or_type, STATE 2755),
     (sym_inferred_type, STATE 1771), (sym_function_signature, STATE 2368),
     (sym__formal_parameter_part, STATE 2339), (sym_formal_parameter_list, STATE 2020),
     (sym__strict_formal_parameter_list, STATE 2016),
     (sym_local_variable_declaration, STATE 542), (sym__covariant, STATE 1795),
     (sym__function_builtin_identifier, STATE 1463), (sym__get, STATE 2500),
     (sym__set, STATE 2500), (sym__new_builtin, STATE 2079), (sym_final_builtin, STATE 1764),
     (sym__late_builtin, STATE 1915), (sym_this, STATE 962), (sym_super, STATE 1337),
     (sym_comment, STATE 25), (sym_documentation_comment, STATE 25),
     (aux_sym_string_literal_repeat1, STATE 474), (aux_sym_block_repeat1, STATE 13),
     (aux_sym__metadata_repeat1, STATE 1308), (sym_identifier, ACTIONS 71),
     (anon_sym_POUND, ACTIONS 73), (sym_decimal_integer_literal, ACTIONS 75),
     (sym_hex_integer_literal, ACTIONS 77), (sym_decimal_floating_point_literal, ACTIONS 75),
     (anon_sym_true, ACTIONS 79), (anon_sym_false, ACTIONS 81), (anon_sym_DQUOTE, ACTIONS 83),
     (anon_sym_SQUOTE, ACTIONS 85), (anon_sym_DQUOTE_DQUOTE_DQUOTE, ACTIONS 87),
     (anon_sym_SQUOTE_SQUOTE_SQUOTE, ACTIONS 89), (anon_sym_r_DQUOTE, ACTIONS 91),
     (anon_sym_r_SQUOTE, ACTIONS 93), (anon_sym_r_DQUOTE_DQUOTE_DQUOTE, ACTIONS 95),
     (anon_sym_r_SQUOTE_SQUOTE_SQUOTE, ACTIONS 97), (anon_sym_LBRACE, ACTIONS 172),
     (anon_sym_RBRACE, ACTIONS 372), (anon_sym_LBRACK, ACTIONS 103),
     (anon_sym_null, ACTIONS 105), (anon_sym_LPAREN, ACTIONS 107), (anon_sym_throw, ACTIONS 109),
     (anon_sym_LT, ACTIONS 111), (sym_increment_operator, ACTIONS 113),
     (sym_minus_operator, ACTIONS 117), (anon_sym_BANG, ACTIONS 119),
     (anon_sym_TILDE, ACTIONS 121), (anon_sym_await, ACTIONS 176),
     (anon_sym_switch, ACTIONS 125), (anon_sym_do, ACTIONS 127), (anon_sym_while, ACTIONS 129),
     (anon_sym_continue, ACTIONS 131), (anon_sym_yield, ACTIONS 133),
     (anon_sym_return, ACTIONS 135), (anon_sym_try, ACTIONS 137), (anon_sym_if, ACTIONS 180),
     (anon_sym_for, ACTIONS 182), (anon_sym_AT, ACTIONS 143), (anon_sym_final, ACTIONS 145),
     (sym_void_type, ACTIONS 33), (anon_sym_var, ACTIONS 35), (sym_break_builtin, ACTIONS 147),
     (sym_assert_builtin, ACTIONS 149), (sym_rethrow_builtin, ACTIONS 151),
     (anon_sym_covariant, ACTIONS 153), (anon_sym_Function, ACTIONS 45),
     (anon_sym_get, ACTIONS 47), (anon_sym_set, ACTIONS 61), (anon_sym_new, ACTIONS 155),
     (sym_const_builtin, ACTIONS 157), (anon_sym_late, ACTIONS 67), (anon_sym_this, ACTIONS 159),
     (anon_sym_super, ACTIONS 161), (anon_sym_SLASH_SLASH, ACTIONS 3),
     (anon_sym_SLASH_STAR, ACTIONS 5), (anon_sym_SLASH_SLASH_SLASH, ACTIONS 7),
     (sym__block_comment, ACTIONS 9), (sym__documentation_block_comment, ACTIONS 11)]"

lemma row_ok_25: "table_row_ok 25 ts_parse_table_25"
  by (simp add: row_simps ts_parse_table_25_def)

definition ts_parse_table_26 :: table_row where
  "ts_parse_table_26 = [
     (sym__bool_literal, STATE 989), (sym__numeric_literal, STATE 989),
     (sym__literal, STATE 962), (sym_symbol_literal, STATE 989), (sym_true, STATE 900),
     (sym_false, STATE 900), (sym_string_literal, STATE 989),
     (sym__string_literal_double_quotes, STATE 627),
     (sym__string_literal_single_quotes, STATE 627),
     (sym__string_literal_double_quotes_multiple, STATE 627),
     (sym__string_literal_single_quotes_multiple, STATE 627),
     (sym__raw_string_literal_double_quotes, STATE 627),
     (sym__raw_string_literal_single_quotes, STATE 627),
     (sym__raw_string_literal_double_quotes_multiple, STATE 627),
     (sym__raw_string_literal_single_quotes_multiple, STATE 627), (sym_list_literal, STATE 989),
     (sym_set_or_map_literal, STATE 989), (sym_null_literal, STATE 989),
     (sym_record_literal, STATE 989), (sym__record_literal_no_const, STATE 924),
     (sym__expression, STATE 3203), (sym__real_expression, STATE 660),
     (sym_throw_expression, STATE 908), (sym_rethrow_expression, STATE 908),
     (sym_assignment_expression, STATE 908), (sym_assignable_expression, STATE 1940),
     (sym_lambda_expression, STATE 534), (sym_function_expression, STATE 962),
     (sym_if_null_expression, STATE 1477), (sym_conditional_expression, STATE 1477),
     (sym_logical_or_expression, STATE 1477), (sym_logical_and_expression, STATE 1477),
     (sym_equality_expression, STATE 1477), (sym_type_cast_expression, STATE 1477),
     (sym_type_test_expression, STATE 1477), (sym_relational_expression, STATE 1477),
     (sym_bitwise_or_expression, STATE 1477), (sym_bitwise_xor_expression, STATE 1477),
     (sym_bitwise_and_expression, STATE 1477), (sym_shift_expression, STATE 1477),
     (sym_additive_expression, STATE 1477), (sym_multiplicative_expression, STATE 1477),
     (sym__unary_expression, STATE 1121), (sym_unary_expression, STATE 1303),
     (sym__postfix_expression, STATE 1303), (sym_postfix_expression, STATE 1301),
     (sym_prefix_operator, STATE 431), (sym_negation_operator, STATE 1450),
     (sym__exclamation_operator, STATE 1451), (sym_tilde_operator, STATE 1385),
     (sym_await_expression, STATE 1302), (sym_new_expression, STATE 962),
     (sym_const_object_expression, STATE 962), (sym__primary, STATE 668),
     (sym_parenthesized_expression, STATE 962), (sym_constructor_invocation, STATE 643),
     (sym_constructor_tearoff, STATE 962), (sym_type_arguments, STATE 3200),
     (sym__statement, STATE 556), (sym_local_function_declaration, STATE 533),
     (sym_block, STATE 527), (sym_expression_statement, STATE 527),
     (sym_assert_statement, STATE 527), (sym_assertion, STATE 3380),
     (sym_switch_statement, STATE 527), (sym_switch_expression, STATE 962),
     (sym__parenthesized_pattern, STATE 3182), (sym_list_pattern, STATE 3182),
     (sym_map_pattern, STATE 3182), (sym_record_pattern, STATE 3182),
     (sym_object_pattern, STATE 3182), (sym_pattern_variable_declaration, STATE 3176),
     (sym__outer_pattern, STATE 3410), (sym_pattern_assignment, STATE 908),
     (sym_do_statement, STATE 527), (sym_break_statement, STATE 527),
     (sym_continue_statement, STATE 527), (sym_yield_statement, STATE 527),
     (sym_yield_each_statement, STATE 527), (sym_return_statement, STATE 527),
     (sym_try_statement, STATE 527), (sym__try_head, STATE 464), (sym_if_statement, STATE 527),
     (sym_while_statement, STATE 527), (sym_for_statement, STATE 527),
     (sym_annotation, STATE 1361), (sym__metadata, STATE 1059),
     (sym_type_parameters, STATE 2932), (sym_initialized_variable_definition, STATE 3176),
     (sym__declared_identifier, STATE 2667), (sym__final_const_var_or_type, STATE 3411),
     (sym__type, STATE 2530), (sym__type_not_function, STATE 1796),
     (sym__type_not_void_not_function, STATE 1896), (sym_function_type, STATE 1848),
     (aux_sym__function_type_tails, STATE 1605), (sym__function_type_tail, STATE 1704),
     (sym_record_type, STATE 1805), (sym__type_name, STATE 2004), (sym__var_or_type, STATE 2755),
     (sym_inferred_type, STATE 1771), (sym_function_signature, STATE 2368),
     (sym__formal_parameter_part, STATE 2339), (sym_formal_parameter_list, STATE 2020),
     (sym__strict_formal_parameter_list, STATE 2016),
     (sym_local_variable_declaration, STATE 542), (sym__covariant, STATE 1795),
     (sym__function_builtin_identifier, STATE 1463), (sym__get, STATE 2500),
     (sym__set, STATE 2500), (sym__new_builtin, STATE 2079), (sym_final_builtin, STATE 1764),
     (sym__late_builtin, STATE 1915), (sym_this, STATE 962), (sym_super, STATE 1337),
     (sym_comment, STATE 26), (sym_documentation_comment, STATE 26),
     (aux_sym_string_literal_repeat1, STATE 474), (aux_sym_block_repeat1, STATE 13),
     (aux_sym__metadata_repeat1, STATE 1308), (sym_identifier, ACTIONS 71),
     (anon_sym_POUND, ACTIONS 73), (sym_decimal_integer_literal, ACTIONS 75),
     (sym_hex_integer_literal, ACTIONS 77), (sym_decimal_floating_point_literal, ACTIONS 75),
     (anon_sym_true, ACTIONS 79), (anon_sym_false, ACTIONS 81), (anon_sym_DQUOTE, ACTIONS 83),
     (anon_sym_SQUOTE, ACTIONS 85), (anon_sym_DQUOTE_DQUOTE_DQUOTE, ACTIONS 87),
     (anon_sym_SQUOTE_SQUOTE_SQUOTE, ACTIONS 89), (anon_sym_r_DQUOTE, ACTIONS 91),
     (anon_sym_r_SQUOTE, ACTIONS 93), (anon_sym_r_DQUOTE_DQUOTE_DQUOTE, ACTIONS 95),
     (anon_sym_r_SQUOTE_SQUOTE_SQUOTE, ACTIONS 97), (anon_sym_LBRACE, ACTIONS 172),
     (anon_sym_RBRACE, ACTIONS 374), (anon_sym_LBRACK, ACTIONS 103),
     (anon_sym_null, ACTIONS 105), (anon_sym_LPAREN, ACTIONS 107), (anon_sym_throw, ACTIONS 109),
     (anon_sym_LT, ACTIONS 111), (sym_increment_operator, ACTIONS 113),
     (sym_minus_operator, ACTIONS 117), (anon_sym_BANG, ACTIONS 119),
     (anon_sym_TILDE, ACTIONS 121), (anon_sym_await, ACTIONS 176),
     (anon_sym_switch, ACTIONS 125), (anon_sym_do, ACTIONS 127), (anon_sym_while, ACTIONS 129),
     (anon_sym_continue, ACTIONS 131), (anon_sym_yield, ACTIONS 133),
     (anon_sym_return, ACTIONS 135), (anon_sym_try, ACTIONS 137), (anon_sym_if, ACTIONS 180),
     (anon_sym_for, ACTIONS 182), (anon_sym_AT, ACTIONS 143), (anon_sym_final, ACTIONS 145),
     (sym_void_type, ACTIONS 33), (anon_sym_var, ACTIONS 35), (sym_break_builtin, ACTIONS 147),
     (sym_assert_builtin, ACTIONS 149), (sym_rethrow_builtin, ACTIONS 151),
     (anon_sym_covariant, ACTIONS 153), (anon_sym_Function, ACTIONS 45),
     (anon_sym_get, ACTIONS 47), (anon_sym_set, ACTIONS 61), (anon_sym_new, ACTIONS 155),
     (sym_const_builtin, ACTIONS 157), (anon_sym_late, ACTIONS 67), (anon_sym_this, ACTIONS 159),
     (anon_sym_super, ACTIONS 161), (anon_sym_SLASH_SLASH, ACTIONS 3),
     (anon_sym_SLASH_STAR, ACTIONS 5), (anon_sym_SLASH_SLASH_SLASH, ACTIONS 7),
     (sym__block_comment, ACTIONS 9), (sym__documentation_block_comment, ACTIONS 11)]"

lemma row_ok_26: "table_row_ok 26 ts_parse_table_26"
  by (simp add: row_simps ts_parse_table_26_def)

definition ts_parse_table_27 :: table_row where
  "ts_parse_table_27 = [
     (sym__bool_literal, STATE 989), (sym__numeric_literal, STATE 989),
     (sym__literal, STATE 962), (sym_symbol_literal, STATE 989), (sym_true, STATE 900),
     (sym_false, STATE 900), (sym_string_literal, STATE 989),
     (sym__string_literal_double_quotes, STATE 627),
     (sym__string_literal_single_quotes, STATE 627),
     (sym__string_literal_double_quotes_multiple, STATE 627),
     (sym__string_literal_single_quotes_multiple, STATE 627),
     (sym__raw_string_literal_double_quotes, STATE 627),
     (sym__raw_string_literal_single_quotes, STATE 627),
     (sym__raw_string_literal_double_quotes_multiple, STATE 627),
     (sym__raw_string_literal_single_quotes_multiple, STATE 627), (sym_list_literal, STATE 989),
     (sym_set_or_map_literal, STATE 989), (sym_null_literal, STATE 989),
     (sym_record_literal, STATE 989), (sym__record_literal_no_const, STATE 924),
     (sym__expression, STATE 3203), (sym__real_expression, STATE 660),
     (sym_throw_expression, STATE 908), (sym_rethrow_expression, STATE 908),
     (sym_assignment_expression, STATE 908), (sym_assignable_expression, STATE 1940),
     (sym_lambda_expression, STATE 534), (sym_function_expression, STATE 962),
     (sym_if_null_expression, STATE 1477), (sym_conditional_expression, STATE 1477),
     (sym_logical_or_expression, STATE 1477), (sym_logical_and_expression, STATE 1477),
     (sym_equality_expression, STATE 1477), (sym_type_cast_expression, STATE 1477),
     (sym_type_test_expression, STATE 1477), (sym_relational_expression, STATE 1477),
     (sym_bitwise_or_expression, STATE 1477), (sym_bitwise_xor_expression, STATE 1477),
     (sym_bitwise_and_expression, STATE 1477), (sym_shift_expression, STATE 1477),
     (sym_additive_expression, STATE 1477), (sym_multiplicative_expression, STATE 1477),
     (sym__unary_expression, STATE 1121), (sym_unary_expression, STATE 1303),
     (sym__postfix_expression, STATE 1303), (sym_postfix_expression, STATE 1301),
     (sym_prefix_operator, STATE 431), (sym_negation_operator, STATE 1450),
     (sym__exclamation_operator, STATE 1451), (sym_tilde_operator, STATE 1385),
     (sym_await_expression, STATE 1302), (sym_new_expression, STATE 962),
     (sym_const_object_expression, STATE 962), (sym__primary, STATE 668),
     (sym_parenthesized_expression, STATE 962), (sym_constructor_invocation, STATE 643),
     (sym_constructor_tearoff, STATE 962), (sym_type_arguments, STATE 3200),
     (sym__statement, STATE 556), (sym_local_function_declaration, STATE 533),
     (sym_block, STATE 527), (sym_expression_statement, STATE 527),
     (sym_assert_statement, STATE 527), (sym_assertion, STATE 3380),
     (sym_switch_statement, STATE 527), (sym_switch_expression, STATE 962),
     (sym__parenthesized_pattern, STATE 3182), (sym_list_pattern, STATE 3182),
     (sym_map_pattern, STATE 3182), (sym_record_pattern, STATE 3182),
     (sym_object_pattern, STATE 3182), (sym_pattern_variable_declaration, STATE 3176),
     (sym__outer_pattern, STATE 3410), (sym_pattern_assignment, STATE 908),
     (sym_do_statement, STATE 527), (sym_break_statement, STATE 527),
     (sym_continue_statement, STATE 527), (sym_yield_statement, STATE 527),
     (sym_yield_each_statement, STATE 527), (sym_return_statement, STATE 527),
     (sym_try_statement, STATE 527), (sym__try_head, STATE 464), (sym_if_statement, STATE 527),
     (sym_while_statement, STATE 527), (sym_for_statement, STATE 527),
     (sym_annotation, STATE 1361), (sym__metadata, STATE 1059),
     (sym_type_parameters, STATE 2932), (sym_initialized_variable_definition, STATE 3176),
     (sym__declared_identifier, STATE 2667), (sym__final_const_var_or_type, STATE 3411),
     (sym__type, STATE 2530), (sym__type_not_function, STATE 1796),
     (sym__type_not_void_not_function, STATE 1896), (sym_function_type, STATE 1848),
     (aux_sym__function_type_tails, STATE 1605), (sym__function_type_tail, STATE 1704),
     (sym_record_type, STATE 1805), (sym__type_name, STATE 2004), (sym__var_or_type, STATE 2755),
     (sym_inferred_type, STATE 1771), (sym_function_signature, STATE 2368),
     (sym__formal_parameter_part, STATE 2339), (sym_formal_parameter_list, STATE 2020),
     (sym__strict_formal_parameter_list, STATE 2016),
     (sym_local_variable_declaration, STATE 542), (sym__covariant, STATE 1795),
     (sym__function_builtin_identifier, STATE 1463), (sym__get, STATE 2500),
     (sym__set, STATE 2500), (sym__new_builtin, STATE 2079), (sym_final_builtin, STATE 1764),
     (sym__late_builtin, STATE 1915), (sym_this, STATE 962), (sym_super, STATE 1337),
     (sym_comment, STATE 27), (sym_documentation_comment, STATE 27),
     (aux_sym_string_literal_repeat1, STATE 474), (aux_sym_block_repeat1, STATE 13),
     (aux_sym__metadata_repeat1, STATE 1308), (sym_identifier, ACTIONS 71),
     (anon_sym_POUND, ACTIONS 73), (sym_decimal_integer_literal, ACTIONS 75),
     (sym_hex_integer_literal, ACTIONS 77), (sym_decimal_floating_point_literal, ACTIONS 75),
     (anon_sym_true, ACTIONS 79), (anon_sym_false, ACTIONS 81), (anon_sym_DQUOTE, ACTIONS 83),
     (anon_sym_SQUOTE, ACTIONS 85), (anon_sym_DQUOTE_DQUOTE_DQUOTE, ACTIONS 87),
     (anon_sym_SQUOTE_SQUOTE_SQUOTE, ACTIONS 89), (anon_sym_r_DQUOTE, ACTIONS 91),
     (anon_sym_r_SQUOTE, ACTIONS 93), (anon_sym_r_DQUOTE_DQUOTE_DQUOTE, ACTIONS 95),
     (anon_sym_r_SQUOTE_SQUOTE_SQUOTE, ACTIONS 97), (anon_sym_LBRACE, ACTIONS 172),
     (anon_sym_RBRACE, ACTIONS 376), (anon_sym_LBRACK, ACTIONS 103),
     (anon_sym_null, ACTIONS 105), (anon_sym_LPAREN, ACTIONS 107), (anon_sym_throw, ACTIONS 109),
     (anon_sym_LT, ACTIONS 111), (sym_increment_operator, ACTIONS 113),
     (sym_minus_operator, ACTIONS 117), (anon_sym_BANG, ACTIONS 119),
     (anon_sym_TILDE, ACTIONS 121), (anon_sym_await, ACTIONS 176),
     (anon_sym_switch, ACTIONS 125), (anon_sym_do, ACTIONS 127), (anon_sym_while, ACTIONS 129),
     (anon_sym_continue, ACTIONS 131), (anon_sym_yield, ACTIONS 133),
     (anon_sym_return, ACTIONS 135), (anon_sym_try, ACTIONS 137), (anon_sym_if, ACTIONS 180),
     (anon_sym_for, ACTIONS 182), (anon_sym_AT, ACTIONS 143), (anon_sym_final, ACTIONS 145),
     (sym_void_type, ACTIONS 33), (anon_sym_var, ACTIONS 35), (sym_break_builtin, ACTIONS 147),
     (sym_assert_builtin, ACTIONS 149), (sym_rethrow_builtin, ACTIONS 151),
     (anon_sym_covariant, ACTIONS 153), (anon_sym_Function, ACTIONS 45),
     (anon_sym_get, ACTIONS 47), (anon_sym_set, ACTIONS 61), (anon_sym_new, ACTIONS 155),
     (sym_const_builtin, ACTIONS 157), (anon_sym_late, ACTIONS 67), (anon_sym_this, ACTIONS 159),
     (anon_sym_super, ACTIONS 161), (anon_sym_SLASH_SLASH, ACTIONS 3),
     (anon_sym_SLASH_STAR, ACTIONS 5), (anon_sym_SLASH_SLASH_SLASH, ACTIONS 7),
     (sym__block_comment, ACTIONS 9), (sym__documentation_block_comment, ACTIONS 11)]"

lemma row_ok_27: "table_row_ok 27 ts_parse_table_27"
  by (simp add: row_simps ts_parse_table_27_def)

definition ts_parse_table_28 :: table_row where
  "ts_parse_table_28 = [
     (sym__bool_literal, STATE 989), (sym__numeric_literal, STATE 989),
     (sym__literal, STATE 962), (sym_symbol_literal, STATE 989), (sym_true, STATE 900),
     (sym_false, STATE 900), (sym_string_literal, STATE 989),
     (sym__string_literal_double_quotes, STATE 627),
     (sym__string_literal_single_quotes, STATE 627),
     (sym__string_literal_double_quotes_multiple, STATE 627),
     (sym__string_literal_single_quotes_multiple, STATE 627),
     (sym__raw_string_literal_double_quotes, STATE 627),
     (sym__raw_string_literal_single_quotes, STATE 627),
     (sym__raw_string_literal_double_quotes_multiple, STATE 627),
     (sym__raw_string_literal_single_quotes_multiple, STATE 627), (sym_list_literal, STATE 989),
     (sym_set_or_map_literal, STATE 989), (sym_null_literal, STATE 989),
     (sym_record_literal, STATE 989), (sym__record_literal_no_const, STATE 924),
     (sym__expression, STATE 3203), (sym__real_expression, STATE 660),
     (sym_throw_expression, STATE 908), (sym_rethrow_expression, STATE 908),
     (sym_assignment_expression, STATE 908), (sym_assignable_expression, STATE 1940),
     (sym_lambda_expression, STATE 534), (sym_function_expression, STATE 962),
     (sym_if_null_expression, STATE 1477), (sym_conditional_expression, STATE 1477),
     (sym_logical_or_expression, STATE 1477), (sym_logical_and_expression, STATE 1477),
     (sym_equality_expression, STATE 1477), (sym_type_cast_expression, STATE 1477),
     (sym_type_test_expression, STATE 1477), (sym_relational_expression, STATE 1477),
     (sym_bitwise_or_expression, STATE 1477), (sym_bitwise_xor_expression, STATE 1477),
     (sym_bitwise_and_expression, STATE 1477), (sym_shift_expression, STATE 1477),
     (sym_additive_expression, STATE 1477), (sym_multiplicative_expression, STATE 1477),
     (sym__unary_expression, STATE 1121), (sym_unary_expression, STATE 1303),
     (sym__postfix_expression, STATE 1303), (sym_postfix_expression, STATE 1301),
     (sym_prefix_operator, STATE 431), (sym_negation_operator, STATE 1450),
     (sym__exclamation_operator, STATE 1451), (sym_tilde_operator, STATE 1385),
     (sym_await_expression, STATE 1302), (sym_new_expression, STATE 962),
     (sym_const_object_expression, STATE 962), (sym__primary, STATE 668),
     (sym_parenthesized_expression, STATE 962), (sym_constructor_invocation, STATE 643),
     (sym_constructor_tearoff, STATE 962), (sym_type_arguments, STATE 3200),
     (sym__statement, STATE 3116), (sym_local_function_declaration, STATE 533),
     (sym_block, STATE 527), (sym_expression_statement, STATE 527),
     (sym_assert_statement, STATE 527), (sym_assertion, STATE 3380),
     (sym_switch_statement, STATE 527), (sym_switch_expression, STATE 962),
     (sym__parenthesized_pattern, STATE 3182), (sym_list_pattern, STATE 3182),
     (sym_map_pattern, STATE 3182), (sym_record_pattern, STATE 3182),
     (sym_object_pattern, STATE 3182), (sym_pattern_variable_declaration, STATE 3176),
     (sym__outer_pattern, STATE 3410), (sym_pattern_assignment, STATE 908),
     (sym_do_statement, STATE 527), (sym_break_statement, STATE 527),
     (sym_continue_statement, STATE 527), (sym_yield_statement, STATE 527),
     (sym_yield_each_statement, STATE 527), (sym_return_statement, STATE 527),
     (sym_try_statement, STATE 527), (sym__try_head, STATE 464), (sym_if_statement, STATE 527),
     (sym_while_statement, STATE 527), (sym_for_statement, STATE 527),
     (sym_annotation, STATE 1361), (sym__metadata, STATE 1059),
     (sym_type_parameters, STATE 2932), (sym_initialized_variable_definition, STATE 3176),
     (sym__declared_identifier, STATE 2667), (sym__final_const_var_or_type, STATE 3411),
     (sym__type, STATE 2530), (sym__type_not_function, STATE 1796),
     (sym__type_not_void_not_function, STATE 1896), (sym_function_type, STATE 1848),
     (aux_sym__function_type_tails, STATE 1605), (sym__function_type_tail, STATE 1704),
     (sym_record_type, STATE 1805), (sym__type_name, STATE 2004), (sym__var_or_type, STATE 2755),
     (sym_inferred_type, STATE 1771), (sym_function_signature, STATE 2368),
     (sym__formal_parameter_part, STATE 2339), (sym_formal_parameter_list, STATE 2020),
     (sym__strict_formal_parameter_list, STATE 2016),
     (sym_local_variable_declaration, STATE 542), (sym__covariant, STATE 1795),
     (sym__function_builtin_identifier, STATE 1463), (sym__get, STATE 2500),
     (sym__set, STATE 2500), (sym__new_builtin, STATE 2079), (sym_final_builtin, STATE 1764),
     (sym__late_builtin, STATE 1915), (sym_this, STATE 962), (sym_super, STATE 1337),
     (sym_comment, STATE 28), (sym_documentation_comment, STATE 28),
     (aux_sym_string_literal_repeat1, STATE 474), (aux_sym__metadata_repeat1, STATE 1308),
     (sym_identifier, ACTIONS 71), (anon_sym_POUND, ACTIONS 73),
     (sym_decimal_integer_literal, ACTIONS 75), (sym_hex_integer_literal, ACTIONS 77),
     (sym_decimal_floating_point_literal, ACTIONS 75), (anon_sym_true, ACTIONS 79),
     (anon_sym_false, ACTIONS 81), (anon_sym_DQUOTE, ACTIONS 83), (anon_sym_SQUOTE, ACTIONS 85),
     (anon_sym_DQUOTE_DQUOTE_DQUOTE, ACTIONS 87), (anon_sym_SQUOTE_SQUOTE_SQUOTE, ACTIONS 89),
     (anon_sym_r_DQUOTE, ACTIONS 91), (anon_sym_r_SQUOTE, ACTIONS 93),
     (anon_sym_r_DQUOTE_DQUOTE_DQUOTE, ACTIONS 95),
     (anon_sym_r_SQUOTE_SQUOTE_SQUOTE, ACTIONS 97), (anon_sym_LBRACE, ACTIONS 378),
     (anon_sym_LBRACK, ACTIONS 103), (anon_sym_null, ACTIONS 105),
     (anon_sym_LPAREN, ACTIONS 107), (anon_sym_throw, ACTIONS 109), (anon_sym_LT, ACTIONS 111),
     (sym_increment_operator, ACTIONS 113), (sym_minus_operator, ACTIONS 117),
     (anon_sym_BANG, ACTIONS 119), (anon_sym_TILDE, ACTIONS 121), (anon_sym_await, ACTIONS 380),
     (anon_sym_switch, ACTIONS 125), (anon_sym_do, ACTIONS 127), (anon_sym_while, ACTIONS 382),
     (anon_sym_continue, ACTIONS 131), (anon_sym_yield, ACTIONS 133),
     (anon_sym_return, ACTIONS 135), (anon_sym_try, ACTIONS 137), (anon_sym_if, ACTIONS 384),
     (anon_sym_for, ACTIONS 386), (anon_sym_AT, ACTIONS 143), (anon_sym_final, ACTIONS 145),
     (sym_void_type, ACTIONS 33), (anon_sym_var, ACTIONS 35), (sym_break_builtin, ACTIONS 147),
     (sym_assert_builtin, ACTIONS 149), (sym_rethrow_builtin, ACTIONS 151),
     (anon_sym_covariant, ACTIONS 153), (anon_sym_Function, ACTIONS 45),
     (anon_sym_get, ACTIONS 47), (anon_sym_set, ACTIONS 61), (anon_sym_new, ACTIONS 155),
     (sym_const_builtin, ACTIONS 157), (anon_sym_late, ACTIONS 67), (anon_sym_this, ACTIONS 159),
     (anon_sym_super, ACTIONS 161), (anon_sym_SLASH_SLASH, ACTIONS 3),
     (anon_sym_SLASH_STAR, ACTIONS 5), (anon_sym_SLASH_SLASH_SLASH, ACTIONS 7),
     (sym__block_comment, ACTIONS 9), (sym__documentation_block_comment, ACTIONS 11)]"

lemma row_ok_28: "table_row_ok 28 ts_parse_table_28"
  by (simp add: row_simps ts_parse_table_28_def)

definition ts_parse_table_29 :: table_row where
  "ts_parse_table_29 = [
     (sym__bool_literal, STATE 989), (sym__numeric_literal, STATE 989),
     (sym__literal, STATE 962), (sym_symbol_literal, STATE 989), (sym_true, STATE 900),
     (sym_false, STATE 900), (sym_string_literal, STATE 989),
     (sym__string_literal_double_quotes, STATE 627),
     (sym__string_literal_single_quotes, STATE 627),
     (sym__string_literal_double_quotes_multiple, STATE 627),
     (sym__string_literal_single_quotes_multiple, STATE 627),
     (sym__raw_string_literal_double_quotes, STATE 627),
     (sym__raw_string_literal_single_quotes, STATE 627),
     (sym__raw_string_literal_double_quotes_multiple, STATE 627),
     (sym__raw_string_literal_single_quotes_multiple, STATE 627), (sym_list_literal, STATE 989),
     (sym_set_or_map_literal, STATE 989), (sym_null_literal, STATE 989),
     (sym_record_literal, STATE 989), (sym__record_literal_no_const, STATE 924),
     (sym__expression, STATE 3203), (sym__real_expression, STATE 660),
     (sym_throw_expression, STATE 908), (sym_rethrow_expression, STATE 908),
     (sym_assignment_expression, STATE 908), (sym_assignable_expression, STATE 1940),
     (sym_lambda_expression, STATE 534), (sym_function_expression, STATE 962),
     (sym_if_null_expression, STATE 1477), (sym_conditional_expression, STATE 1477),
     (sym_logical_or_expression, STATE 1477), (sym_logical_and_expression, STATE 1477),
     (sym_equality_expression, STATE 1477), (sym_type_cast_expression, STATE 1477),
     (sym_type_test_expression, STATE 1477), (sym_relational_expression, STATE 1477),
     (sym_bitwise_or_expression, STATE 1477), (sym_bitwise_xor_expression, STATE 1477),
     (sym_bitwise_and_expression, STATE 1477), (sym_shift_expression, STATE 1477),
     (sym_additive_expression, STATE 1477), (sym_multiplicative_expression, STATE 1477),
     (sym__unary_expression, STATE 1121), (sym_unary_expression, STATE 1303),
     (sym__postfix_expression, STATE 1303), (sym_postfix_expression, STATE 1301),
     (sym_prefix_operator, STATE 431), (sym_negation_operator, STATE 1450),
     (sym__exclamation_operator, STATE 1451), (sym_tilde_operator, STATE 1385),
     (sym_await_expression, STATE 1302), (sym_new_expression, STATE 962),
     (sym_const_object_expression, STATE 962), (sym__primary, STATE 668),
     (sym_parenthesized_expression, STATE 962), (sym_constructor_invocation, STATE 643),
     (sym_constructor_tearoff, STATE 962), (sym_type_arguments, STATE 3200),
     (sym__statement, STATE 520), (sym_local_function_declaration, STATE 533),
     (sym_block, STATE 527), (sym_expression_statement, STATE 527),
     (sym_assert_statement, STATE 527), (sym_assertion, STATE 3380),
     (sym_switch_statement, STATE 527), (sym_switch_expression, STATE 962),
     (sym__parenthesized_pattern, STATE 3182), (sym_list_pattern, STATE 3182),
     (sym_map_pattern, STATE 3182), (sym_record_pattern, STATE 3182),
     (sym_object_pattern, STATE 3182), (sym_pattern_variable_declaration, STATE 3176),
     (sym__outer_pattern, STATE 3410), (sym_pattern_assignment, STATE 908),
     (sym_do_statement, STATE 527), (sym_break_statement, STATE 527),
     (sym_continue_statement, STATE 527), (sym_yield_statement, STATE 527),
     (sym_yield_each_statement, STATE 527), (sym_return_statement, STATE 527),
     (sym_try_statement, STATE 527), (sym__try_head, STATE 464), (sym_if_statement, STATE 527),
     (sym_while_statement, STATE 527), (sym_for_statement, STATE 527),
     (sym_annotation, STATE 1361), (sym__metadata, STATE 1059),
     (sym_type_parameters, STATE 2932), (sym_initialized_variable_definition, STATE 3176),
     (sym__declared_identifier, STATE 2667), (sym__final_const_var_or_type, STATE 3411),
     (sym__type, STATE 2530), (sym__type_not_function, STATE 1796),
     (sym__type_not_void_not_function, STATE 1896), (sym_function_type, STATE 1848),
     (aux_sym__function_type_tails, STATE 1605), (sym__function_type_tail, STATE 1704),
     (sym_record_type, STATE 1805), (sym__type_name, STATE 2004), (sym__var_or_type, STATE 2755),
     (sym_inferred_type, STATE 1771), (sym_function_signature, STATE 2368),
     (sym__formal_parameter_part, STATE 2339), (sym_formal_parameter_list, STATE 2020),
     (sym__strict_formal_parameter_list, STATE 2016),
     (sym_local_variable_declaration, STATE 542), (sym__covariant, STATE 1795),
     (sym__function_builtin_identifier, STATE 1463), (sym__get, STATE 2500),
     (sym__set, STATE 2500), (sym__new_builtin, STATE 2079), (sym_final_builtin, STATE 1764),
     (sym__late_builtin, STATE 1915), (sym_this, STATE 962), (sym_super, STATE 1337),
     (sym_comment, STATE 29), (sym_documentation_comment, STATE 29),
     (aux_sym_string_literal_repeat1, STATE 474), (aux_sym__metadata_repeat1, STATE 1308),
     (sym_identifier, ACTIONS 71), (anon_sym_POUND, ACTIONS 73),
     (sym_decimal_integer_literal, ACTIONS 75), (sym_hex_integer_literal, ACTIONS 77),
     (sym_decimal_floating_point_literal, ACTIONS 75), (anon_sym_true, ACTIONS 79),
     (anon_sym_false, ACTIONS 81), (anon_sym_DQUOTE, ACTIONS 83), (anon_sym_SQUOTE, ACTIONS 85),
     (anon_sym_DQUOTE_DQUOTE_DQUOTE, ACTIONS 87), (anon_sym_SQUOTE_SQUOTE_SQUOTE, ACTIONS 89),
     (anon_sym_r_DQUOTE, ACTIONS 91), (anon_sym_r_SQUOTE, ACTIONS 93),
     (anon_sym_r_DQUOTE_DQUOTE_DQUOTE, ACTIONS 95),
     (anon_sym_r_SQUOTE_SQUOTE_SQUOTE, ACTIONS 97), (anon_sym_LBRACE, ACTIONS 378),
     (anon_sym_LBRACK, ACTIONS 103), (anon_sym_null, ACTIONS 105),
     (anon_sym_LPAREN, ACTIONS 107), (anon_sym_throw, ACTIONS 109), (anon_sym_LT, ACTIONS 111),
     (sym_increment_operator, ACTIONS 113), (sym_minus_operator, ACTIONS 117),
     (anon_sym_BANG, ACTIONS 119), (anon_sym_TILDE, ACTIONS 121), (anon_sym_await, ACTIONS 380),
     (anon_sym_switch, ACTIONS 125), (anon_sym_do, ACTIONS 127), (anon_sym_while, ACTIONS 382),
     (anon_sym_continue, ACTIONS 131), (anon_sym_yield, ACTIONS 133),
     (anon_sym_return, ACTIONS 135), (anon_sym_try, ACTIONS 137), (anon_sym_if, ACTIONS 384),
     (anon_sym_for, ACTIONS 386), (anon_sym_AT, ACTIONS 143), (anon_sym_final, ACTIONS 145),
     (sym_void_type, ACTIONS 33), (anon_sym_var, ACTIONS 35), (sym_break_builtin, ACTIONS 147),
     (sym_assert_builtin, ACTIONS 149), (sym_rethrow_builtin, ACTIONS 151),
     (anon_sym_covariant, ACTIONS 153), (anon_sym_Function, ACTIONS 45),
     (anon_sym_get, ACTIONS 47), (anon_sym_set, ACTIONS 61), (anon_sym_new, ACTIONS 155),
     (sym_const_builtin, ACTIONS 157), (anon_sym_late, ACTIONS 67), (anon_sym_this, ACTIONS 159),
     (anon_sym_super, ACTIONS 161), (anon_sym_SLASH_SLASH, ACTIONS 3),
     (anon_sym_SLASH_STAR, ACTIONS 5), (anon_sym_SLASH_SLASH_SLASH, ACTIONS 7),
     (sym__block_comment, ACTIONS 9), (sym__documentation_block_comment, ACTIONS 11)]"

lemma row_ok_29: "table_row_ok 29 ts_parse_table_29"
  by (simp add: row_simps ts_parse_table_29_def)

definition ts_parse_table_30 :: table_row where
  "ts_parse_table_30 = [
     (sym__bool_literal, STATE 989), (sym__numeric_literal, STATE 989),
     (sym__literal, STATE 962), (sym_symbol_literal, STATE 989), (sym_true, STATE 900),
     (sym_false, STATE 900), (sym_string_literal, STATE 989),
     (sym__string_literal_double_quotes, STATE 627),
     (sym__string_literal_single_quotes, STATE 627),
     (sym__string_literal_double_quotes_multiple, STATE 627),
     (sym__string_literal_single_quotes_multiple, STATE 627),
     (sym__raw_string_literal_double_quotes, STATE 627),
     (sym__raw_string_literal_single_quotes, STATE 627),
     (sym__raw_string_literal_double_quotes_multiple, STATE 627),
     (sym__raw_string_literal_single_quotes_multiple, STATE 627), (sym_list_literal, STATE 989),
     (sym_set_or_map_literal, STATE 989), (sym_null_literal, STATE 989),
     (sym_record_literal, STATE 989), (sym__record_literal_no_const, STATE 924),
     (sym__expression, STATE 3203), (sym__real_expression, STATE 660),
     (sym_throw_expression, STATE 908), (sym_rethrow_expression, STATE 908),
     (sym_assignment_expression, STATE 908), (sym_assignable_expression, STATE 1940),
     (sym_lambda_expression, STATE 534), (sym_function_expression, STATE 962),
     (sym_if_null_expression, STATE 1477), (sym_conditional_expression, STATE 1477),
     (sym_logical_or_expression, STATE 1477), (sym_logical_and_expression, STATE 1477),
     (sym_equality_expression, STATE 1477), (sym_type_cast_expression, STATE 1477),
     (sym_type_test_expression, STATE 1477), (sym_relational_expression, STATE 1477),
     (sym_bitwise_or_expression, STATE 1477), (sym_bitwise_xor_expression, STATE 1477),
     (sym_bitwise_and_expression, STATE 1477), (sym_shift_expression, STATE 1477),
     (sym_additive_expression, STATE 1477), (sym_multiplicative_expression, STATE 1477),
     (sym__unary_expression, STATE 1121), (sym_unary_expression, STATE 1303),
     (sym__postfix_expression, STATE 1303), (sym_postfix_expression, STATE 1301),
     (sym_prefix_operator, STATE 431), (sym_negation_operator, STATE 1450),
     (sym__exclamation_operator, STATE 1451), (sym_tilde_operator, STATE 1385),
     (sym_await_expression, STATE 1302), (sym_new_expression, STATE 962),
     (sym_const_object_expression, STATE 962), (sym__primary, STATE 668),
     (sym_parenthesized_expression, STATE 962), (sym_constructor_invocation, STATE 643),
     (sym_constructor_tearoff, STATE 962), (sym_type_arguments, STATE 3200),
     (sym__statement, STATE 523), (sym_local_function_declaration, STATE 533),
     (sym_block, STATE 527), (sym_expression_statement, STATE 527),
     (sym_assert_statement, STATE 527), (sym_assertion, STATE 3380),
     (sym_switch_statement, STATE 527), (sym_switch_expression, STATE 962),
     (sym__parenthesized_pattern, STATE 3182), (sym_list_pattern, STATE 3182),
     (sym_map_pattern, STATE 3182), (sym_record_pattern, STATE 3182),
     (sym_object_pattern, STATE 3182), (sym_pattern_variable_declaration, STATE 3176),
     (sym__outer_pattern, STATE 3410), (sym_pattern_assignment, STATE 908),
     (sym_do_statement, STATE 527), (sym_break_statement, STATE 527),
     (sym_continue_statement, STATE 527), (sym_yield_statement, STATE 527),
     (sym_yield_each_statement, STATE 527), (sym_return_statement, STATE 527),
     (sym_try_statement, STATE 527), (sym__try_head, STATE 464), (sym_if_statement, STATE 527),
     (sym_while_statement, STATE 527), (sym_for_statement, STATE 527),
     (sym_annotation, STATE 1361), (sym__metadata, STATE 1059),
     (sym_type_parameters, STATE 2932), (sym_initialized_variable_definition, STATE 3176),
     (sym__declared_identifier, STATE 2667), (sym__final_const_var_or_type, STATE 3411),
     (sym__type, STATE 2530), (sym__type_not_function, STATE 1796),
     (sym__type_not_void_not_function, STATE 1896), (sym_function_type, STATE 1848),
     (aux_sym__function_type_tails, STATE 1605), (sym__function_type_tail, STATE 1704),
     (sym_record_type, STATE 1805), (sym__type_name, STATE 2004), (sym__var_or_type, STATE 2755),
     (sym_inferred_type, STATE 1771), (sym_function_signature, STATE 2368),
     (sym__formal_parameter_part, STATE 2339), (sym_formal_parameter_list, STATE 2020),
     (sym__strict_formal_parameter_list, STATE 2016),
     (sym_local_variable_declaration, STATE 542), (sym__covariant, STATE 1795),
     (sym__function_builtin_identifier, STATE 1463), (sym__get, STATE 2500),
     (sym__set, STATE 2500), (sym__new_builtin, STATE 2079), (sym_final_builtin, STATE 1764),
     (sym__late_builtin, STATE 1915), (sym_this, STATE 962), (sym_super, STATE 1337),
     (sym_comment, STATE 30), (sym_documentation_comment, STATE 30),
     (aux_sym_string_literal_repeat1, STATE 474), (aux_sym__metadata_repeat1, STATE 1308),
     (sym_identifier, ACTIONS 71), (anon_sym_POUND, ACTIONS 73),
     (sym_decimal_integer_literal, ACTIONS 75), (sym_hex_integer_literal, ACTIONS 77),
     (sym_decimal_floating_point_literal, ACTIONS 75), (anon_sym_true, ACTIONS 79),
     (anon_sym_false, ACTIONS 81), (anon_sym_DQUOTE, ACTIONS 83), (anon_sym_SQUOTE, ACTIONS 85),
     (anon_sym_DQUOTE_DQUOTE_DQUOTE, ACTIONS 87), (anon_sym_SQUOTE_SQUOTE_SQUOTE, ACTIONS 89),
     (anon_sym_r_DQUOTE, ACTIONS 91), (anon_sym_r_SQUOTE, ACTIONS 93),
     (anon_sym_r_DQUOTE_DQUOTE_DQUOTE, ACTIONS 95),
     (anon_sym_r_SQUOTE_SQUOTE_SQUOTE, ACTIONS 97), (anon_sym_LBRACE, ACTIONS 378),
     (anon_sym_LBRACK, ACTIONS 103), (anon_sym_null, ACTIONS 105),
     (anon_sym_LPAREN, ACTIONS 107), (anon_sym_throw, ACTIONS 109), (anon_sym_LT, ACTIONS 111),
     (sym_increment_operator, ACTIONS 113), (sym_minus_operator, ACTIONS 117),
     (anon_sym_BANG, ACTIONS 119), (anon_sym_TILDE, ACTIONS 121), (anon_sym_await, ACTIONS 380),
     (anon_sym_switch, ACTIONS 125), (anon_sym_do, ACTIONS 127), (anon_sym_while, ACTIONS 382),
     (anon_sym_continue, ACTIONS 131), (anon_sym_yield, ACTIONS 133),
     (anon_sym_return, ACTIONS 135), (anon_sym_try, ACTIONS 137), (anon_sym_if, ACTIONS 384),
     (anon_sym_for, ACTIONS 386), (anon_sym_AT, ACTIONS 143), (anon_sym_final, ACTIONS 145),
     (sym_void_type, ACTIONS 33), (anon_sym_var, ACTIONS 35), (sym_break_builtin, ACTIONS 147),
     (sym_assert_builtin, ACTIONS 149), (sym_rethrow_builtin, ACTIONS 151),
     (anon_sym_covariant, ACTIONS 153), (anon_sym_Function, ACTIONS 45),
     (anon_sym_get, ACTIONS 47), (anon_sym_set, ACTIONS 61), (anon_sym_new, ACTIONS 155),
     (sym_const_builtin, ACTIONS 157), (anon_sym_late, ACTIONS 67), (anon_sym_this, ACTIONS 159),
     (anon_sym_super, ACTIONS 161), (anon_sym_SLASH_SLASH, ACTIONS 3),
     (anon_sym_SLASH_STAR, ACTIONS 5), (anon_sym_SLASH_SLASH_SLASH, ACTIONS 7),
     (sym__block_comment, ACTIONS 9), (sym__documentation_block_comment, ACTIONS 11)]"

lemma row_ok_30: "table_row_ok 30 ts_parse_table_30"
  by (simp add: row_simps ts_parse_table_30_def)

definition ts_parse_table_31 :: table_row where
  "ts_parse_table_31 = [
     (sym__bool_literal, STATE 989), (sym__numeric_literal, STATE 989),
     (sym__literal, STATE 962), (sym_symbol_literal, STATE 989), (sym_true, STATE 900),
     (sym_false, STATE 900), (sym_string_literal, STATE 989),
     (sym__string_literal_double_quotes, STATE 627),
     (sym__string_literal_single_quotes, STATE 627),
     (sym__string_literal_double_quotes_multiple, STATE 627),
     (sym__string_literal_single_quotes_multiple, STATE 627),
     (sym__raw_string_literal_double_quotes, STATE 627),
     (sym__raw_string_literal_single_quotes, STATE 627),
     (sym__raw_string_literal_double_quotes_multiple, STATE 627),
     (sym__raw_string_literal_single_quotes_multiple, STATE 627), (sym_list_literal, STATE 989),
     (sym_set_or_map_literal, STATE 989), (sym_null_literal, STATE 989),
     (sym_record_literal, STATE 989), (sym__record_literal_no_const, STATE 924),
     (sym__expression, STATE 3203), (sym__real_expression, STATE 660),
     (sym_throw_expression, STATE 908), (sym_rethrow_expression, STATE 908),
     (sym_assignment_expression, STATE 908), (sym_assignable_expression, STATE 1940),
     (sym_lambda_expression, STATE 534), (sym_function_expression, STATE 962),
     (sym_if_null_expression, STATE 1477), (sym_conditional_expression, STATE 1477),
     (sym_logical_or_expression, STATE 1477), (sym_logical_and_expression, STATE 1477),
     (sym_equality_expression, STATE 1477), (sym_type_cast_expression, STATE 1477),
     (sym_type_test_expression, STATE 1477), (sym_relational_expression, STATE 1477),
     (sym_bitwise_or_expression, STATE 1477), (sym_bitwise_xor_expression, STATE 1477),
     (sym_bitwise_and_expression, STATE 1477), (sym_shift_expression, STATE 1477),
     (sym_additive_expression, STATE 1477), (sym_multiplicative_expression, STATE 1477),
     (sym__unary_expression, STATE 1121), (sym_unary_expression, STATE 1303),
     (sym__postfix_expression, STATE 1303), (sym_postfix_expression, STATE 1301),
     (sym_prefix_operator, STATE 431), (sym_negation_operator, STATE 1450),
     (sym__exclamation_operator, STATE 1451), (sym_tilde_operator, STATE 1385),
     (sym_await_expression, STATE 1302), (sym_new_expression, STATE 962),
     (sym_const_object_expression, STATE 962), (sym__primary, STATE 668),
     (sym_parenthesized_expression, STATE 962), (sym_constructor_invocation, STATE 643),
     (sym_constructor_tearoff, STATE 962), (sym_type_arguments, STATE 3200),
     (sym__statement, STATE 520), (sym_local_function_declaration, STATE 533),
     (sym_block, STATE 527), (sym_expression_statement, STATE 527),
     (sym_assert_statement, STATE 527), (sym_assertion, STATE 3380),
     (sym_switch_statement, STATE 527), (sym_switch_expression, STATE 962),
     (sym__parenthesized_pattern, STATE 3182), (sym_list_pattern, STATE 3182),
     (sym_map_pattern, STATE 3182), (sym_record_pattern, STATE 3182),
     (sym_object_pattern, STATE 3182), (sym_pattern_variable_declaration, STATE 3176),
     (sym__outer_pattern, STATE 3410), (sym_pattern_assignment, STATE 908),
     (sym_do_statement, STATE 527), (sym_break_statement, STATE 527),
     (sym_continue_statement, STATE 527), (sym_yield_statement, STATE 527),
     (sym_yield_each_statement, STATE 527), (sym_return_statement, STATE 527),
     (sym_try_statement, STATE 527), (sym__try_head, STATE 464), (sym_if_statement, STATE 527),
     (sym_while_statement, STATE 527), (sym_for_statement, STATE 527),
     (sym_annotation, STATE 1361), (sym__metadata, STATE 1059),
     (sym_type_parameters, STATE 2932), (sym_initialized_variable_definition, STATE 3176),
     (sym__declared_identifier, STATE 2667), (sym__final_const_var_or_type, STATE 3411),
     (sym__type, STATE 2530), (sym__type_not_function, STATE 1796),
     (sym__type_not_void_not_function, STATE 1896), (sym_function_type, STATE 1848),
     (aux_sym__function_type_tails, STATE 1605), (sym__function_type_tail, STATE 1704),
     (sym_record_type, STATE 1805), (sym__type_name, STATE 2004), (sym__var_or_type, STATE 2755),
     (sym_inferred_type, STATE 1771), (sym_function_signature, STATE 2368),
     (sym__formal_parameter_part, STATE 2339), (sym_formal_parameter_list, STATE 2020),
     (sym__strict_formal_parameter_list, STATE 2016),
     (sym_local_variable_declaration, STATE 542), (sym__covariant, STATE 1795),
     (sym__function_builtin_identifier, STATE 1463), (sym__get, STATE 2500),
     (sym__set, STATE 2500), (sym__new_builtin, STATE 2079), (sym_final_builtin, STATE 1764),
     (sym__late_builtin, STATE 1915), (sym_this, STATE 962), (sym_super, STATE 1337),
     (sym_comment, STATE 31), (sym_documentation_comment, STATE 31),
     (aux_sym_string_literal_repeat1, STATE 474), (aux_sym__metadata_repeat1, STATE 1308),
     (sym_identifier, ACTIONS 71), (anon_sym_POUND, ACTIONS 73),
     (sym_decimal_integer_literal, ACTIONS 75), (sym_hex_integer_literal, ACTIONS 77),
     (sym_decimal_floating_point_literal, ACTIONS 75), (anon_sym_true, ACTIONS 79),
     (anon_sym_false, ACTIONS 81), (anon_sym_DQUOTE, ACTIONS 83), (anon_sym_SQUOTE, ACTIONS 85),
     (anon_sym_DQUOTE_DQUOTE_DQUOTE, ACTIONS 87), (anon_sym_SQUOTE_SQUOTE_SQUOTE, ACTIONS 89),
     (anon_sym_r_DQUOTE, ACTIONS 91), (anon_sym_r_SQUOTE, ACTIONS 93),
     (anon_sym_r_DQUOTE_DQUOTE_DQUOTE, ACTIONS 95),
     (anon_sym_r_SQUOTE_SQUOTE_SQUOTE, ACTIONS 97), (anon_sym_LBRACE, ACTIONS 172),
     (anon_sym_LBRACK, ACTIONS 103), (anon_sym_null, ACTIONS 105),
     (anon_sym_LPAREN, ACTIONS 107), (anon_sym_throw, ACTIONS 109), (anon_sym_LT, ACTIONS 111),
     (sym_increment_operator, ACTIONS 113), (sym_minus_operator, ACTIONS 117),
     (anon_sym_BANG, ACTIONS 119), (anon_sym_TILDE, ACTIONS 121), (anon_sym_await, ACTIONS 176),
     (anon_sym_switch, ACTIONS 125), (anon_sym_do, ACTIONS 127), (anon_sym_while, ACTIONS 129),
     (anon_sym_continue, ACTIONS 131), (anon_sym_yield, ACTIONS 133),
     (anon_sym_return, ACTIONS 135), (anon_sym_try, ACTIONS 137), (anon_sym_if, ACTIONS 180),
     (anon_sym_for, ACTIONS 182), (anon_sym_AT, ACTIONS 143), (anon_sym_final, ACTIONS 145),
     (sym_void_type, ACTIONS 33), (anon_sym_var, ACTIONS 35), (sym_break_builtin, ACTIONS 147),
     (sym_assert_builtin, ACTIONS 149), (sym_rethrow_builtin, ACTIONS 151),
     (anon_sym_covariant, ACTIONS 153), (anon_sym_Function, ACTIONS 45),
     (anon_sym_get, ACTIONS 47), (anon_sym_set, ACTIONS 61), (anon_sym_new, ACTIONS 155),
     (sym_const_builtin, ACTIONS 157), (anon_sym_late, ACTIONS 67), (anon_sym_this, ACTIONS 159),
     (anon_sym_super, ACTIONS 161), (anon_sym_SLASH_SLASH, ACTIONS 3),
     (anon_sym_SLASH_STAR, ACTIONS 5), (anon_sym_SLASH_SLASH_SLASH, ACTIONS 7),
     (sym__block_comment, ACTIONS 9), (sym__documentation_block_comment, ACTIONS 11)]"

lemma row_ok_31: "table_row_ok 31 ts_parse_table_31"
  by (simp add: row_simps ts_parse_table_31_def)

definition ts_parse_table_32 :: table_row where
  "ts_parse_table_32 = [
     (sym__bool_literal, STATE 989), (sym__numeric_literal, STATE 989),
     (sym__literal, STATE 962), (sym_symbol_literal, STATE 989), (sym_true, STATE 900),
     (sym_false, STATE 900), (sym_string_literal, STATE 989),
     (sym__string_literal_double_quotes, STATE 627),
     (sym__string_literal_single_quotes, STATE 627),
     (sym__string_literal_double_quotes_multiple, STATE 627),
     (sym__string_literal_single_quotes_multiple, STATE 627),
     (sym__raw_string_literal_double_quotes, STATE 627),
     (sym__raw_string_literal_single_quotes, STATE 627),
     (sym__raw_string_literal_double_quotes_multiple, STATE 627),
     (sym__raw_string_literal_single_quotes_multiple, STATE 627), (sym_list_literal, STATE 989),
     (sym_set_or_map_literal, STATE 989), (sym_null_literal, STATE 989),
     (sym_record_literal, STATE 989), (sym__record_literal_no_const, STATE 924),
     (sym__expression, STATE 3203), (sym__real_expression, STATE 660),
     (sym_throw_expression, STATE 908), (sym_rethrow_expression, STATE 908),
     (sym_assignment_expression, STATE 908), (sym_assignable_expression, STATE 1940),
     (sym_lambda_expression, STATE 534), (sym_function_expression, STATE 962),
     (sym_if_null_expression, STATE 1477), (sym_conditional_expression, STATE 1477),
     (sym_logical_or_expression, STATE 1477), (sym_logical_and_expression, STATE 1477),
     (sym_equality_expression, STATE 1477), (sym_type_cast_expression, STATE 1477),
     (sym_type_test_expression, STATE 1477), (sym_relational_expression, STATE 1477),
     (sym_bitwise_or_expression, STATE 1477), (sym_bitwise_xor_expression, STATE 1477),
     (sym_bitwise_and_expression, STATE 1477), (sym_shift_expression, STATE 1477),
     (sym_additive_expression, STATE 1477), (sym_multiplicative_expression, STATE 1477),
     (sym__unary_expression, STATE 1121), (sym_unary_expression, STATE 1303),
     (sym__postfix_expression, STATE 1303), (sym_postfix_expression, STATE 1301),
     (sym_prefix_operator, STATE 431), (sym_negation_operator, STATE 1450),
     (sym__exclamation_operator, STATE 1451), (sym_tilde_operator, STATE 1385),
     (sym_await_expression, STATE 1302), (sym_new_expression, STATE 962),
     (sym_const_object_expression, STATE 962), (sym__primary, STATE 668),
     (sym_parenthesized_expression, STATE 962), (sym_constructor_invocation, STATE 643),
     (sym_constructor_tearoff, STATE 962), (sym_type_arguments, STATE 3200),
     (sym__statement, STATE 547), (sym_local_function_declaration, STATE 533),
     (sym_block, STATE 527), (sym_expression_statement, STATE 527),
     (sym_assert_statement, STATE 527), (sym_assertion, STATE 3380),
     (sym_switch_statement, STATE 527), (sym_switch_expression, STATE 962),
     (sym__parenthesized_pattern, STATE 3182), (sym_list_pattern, STATE 3182),
     (sym_map_pattern, STATE 3182), (sym_record_pattern, STATE 3182),
     (sym_object_pattern, STATE 3182), (sym_pattern_variable_declaration, STATE 3176),
     (sym__outer_pattern, STATE 3410), (sym_pattern_assignment, STATE 908),
     (sym_do_statement, STATE 527), (sym_break_statement, STATE 527),
     (sym_continue_statement, STATE 527), (sym_yield_statement, STATE 527),
     (sym_yield_each_statement, STATE 527), (sym_return_statement, STATE 527),
     (sym_try_statement, STATE 527), (sym__try_head, STATE 464), (sym_if_statement, STATE 527),
     (sym_while_statement, STATE 527), (sym_for_statement, STATE 527),
     (sym_annotation, STATE 1361), (sym__metadata, STATE 1059),
     (sym_type_parameters, STATE 2932), (sym_initialized_variable_definition, STATE 3176),
     (sym__declared_identifier, STATE 2667), (sym__final_const_var_or_type, STATE 3411),
     (sym__type, STATE 2530), (sym__type_not_function, STATE 1796),
     (sym__type_not_void_not_function, STATE 1896), (sym_function_type, STATE 1848),
     (aux_sym__function_type_tails, STATE 1605), (sym__function_type_tail, STATE 1704),
     (sym_record_type, STATE 1805), (sym__type_name, STATE 2004), (sym__var_or_type, STATE 2755),
     (sym_inferred_type, STATE 1771), (sym_function_signature, STATE 2368),
     (sym__formal_parameter_part, STATE 2339), (sym_formal_parameter_list, STATE 2020),
     (sym__strict_formal_parameter_list, STATE 2016),
     (sym_local_variable_declaration, STATE 542), (sym__covariant, STATE 1795),
     (sym__function_builtin_identifier, STATE 1463), (sym__get, STATE 2500),
     (sym__set, STATE 2500), (sym__new_builtin, STATE 2079), (sym_final_builtin, STATE 1764),
     (sym__late_builtin, STATE 1915), (sym_this, STATE 962), (sym_super, STATE 1337),
     (sym_comment, STATE 32), (sym_documentation_comment, STATE 32),
     (aux_sym_string_literal_repeat1, STATE 474), (aux_sym__metadata_repeat1, STATE 1308),
     (sym_identifier, ACTIONS 71), (anon_sym_POUND, ACTIONS 73),
     (sym_decimal_integer_literal, ACTIONS 75), (sym_hex_integer_literal, ACTIONS 77),
     (sym_decimal_floating_point_literal, ACTIONS 75), (anon_sym_true, ACTIONS 79),
     (anon_sym_false, ACTIONS 81), (anon_sym_DQUOTE, ACTIONS 83), (anon_sym_SQUOTE, ACTIONS 85),
     (anon_sym_DQUOTE_DQUOTE_DQUOTE, ACTIONS 87), (anon_sym_SQUOTE_SQUOTE_SQUOTE, ACTIONS 89),
     (anon_sym_r_DQUOTE, ACTIONS 91), (anon_sym_r_SQUOTE, ACTIONS 93),
     (anon_sym_r_DQUOTE_DQUOTE_DQUOTE, ACTIONS 95),
     (anon_sym_r_SQUOTE_SQUOTE_SQUOTE, ACTIONS 97), (anon_sym_LBRACE, ACTIONS 172),
     (anon_sym_LBRACK, ACTIONS 103), (anon_sym_null, ACTIONS 105),
     (anon_sym_LPAREN, ACTIONS 107), (anon_sym_throw, ACTIONS 109), (anon_sym_LT, ACTIONS 111),
     (sym_increment_operator, ACTIONS 113), (sym_minus_operator, ACTIONS 117),
     (anon_sym_BANG, ACTIONS 119), (anon_sym_TILDE, ACTIONS 121), (anon_sym_await, ACTIONS 176),
     (anon_sym_switch, ACTIONS 125), (anon_sym_do, ACTIONS 127), (anon_sym_while, ACTIONS 129),
     (anon_sym_continue, ACTIONS 131), (anon_sym_yield, ACTIONS 133),
     (anon_sym_return, ACTIONS 135), (anon_sym_try, ACTIONS 137), (anon_sym_if, ACTIONS 180),
     (anon_sym_for, ACTIONS 182), (anon_sym_AT, ACTIONS 143), (anon_sym_final, ACTIONS 145),
     (sym_void_type, ACTIONS 33), (anon_sym_var, ACTIONS 35), (sym_break_builtin, ACTIONS 147),
     (sym_assert_builtin, ACTIONS 149), (sym_rethrow_builtin, ACTIONS 151),
     (anon_sym_covariant, ACTIONS 153), (anon_sym_Function, ACTIONS 45),
     (anon_sym_get, ACTIONS 47), (anon_sym_set, ACTIONS 61), (anon_sym_new, ACTIONS 155),
     (sym_const_builtin, ACTIONS 157), (anon_sym_late, ACTIONS 67), (anon_sym_this, ACTIONS 159),
     (anon_sym_super, ACTIONS 161), (anon_sym_SLASH_SLASH, ACTIONS 3),
     (anon_sym_SLASH_STAR, ACTIONS 5), (anon_sym_SLASH_SLASH_SLASH, ACTIONS 7),
     (sym__block_comment, ACTIONS 9), (sym__documentation_block_comment, ACTIONS 11)]"

lemma row_ok_32: "table_row_ok 32 ts_parse_table_32"
  by (simp add: row_simps ts_parse_table_32_def)

definition ts_parse_table_33 :: table_row where
  "ts_parse_table_33 = [
     (sym__bool_literal, STATE 989), (sym__numeric_literal, STATE 989),
     (sym__literal, STATE 962), (sym_symbol_literal, STATE 989), (sym_true, STATE 900),
     (sym_false, STATE 900), (sym_string_literal, STATE 989),
     (sym__string_literal_double_quotes, STATE 627),
     (sym__string_literal_single_quotes, STATE 627),
     (sym__string_literal_double_quotes_multiple, STATE 627),
     (sym__string_literal_single_quotes_multiple, STATE 627),
     (sym__raw_string_literal_double_quotes, STATE 627),
     (sym__raw_string_literal_single_quotes, STATE 627),
     (sym__raw_string_literal_double_quotes_multiple, STATE 627),
     (sym__raw_string_literal_single_quotes_multiple, STATE 627), (sym_list_literal, STATE 989),
     (sym_set_or_map_literal, STATE 989), (sym_null_literal, STATE 989),
     (sym_record_literal, STATE 989), (sym__record_literal_no_const, STATE 924),
     (sym__expression, STATE 3203), (sym__real_expression, STATE 660),
     (sym_throw_expression, STATE 908), (sym_rethrow_expression, STATE 908),
     (sym_assignment_expression, STATE 908), (sym_assignable_expression, STATE 1940),
     (sym_lambda_expression, STATE 534), (sym_function_expression, STATE 962),
     (sym_if_null_expression, STATE 1477), (sym_conditional_expression, STATE 1477),
     (sym_logical_or_expression, STATE 1477), (sym_logical_and_expression, STATE 1477),
     (sym_equality_expression, STATE 1477), (sym_type_cast_expression, STATE 1477),
     (sym_type_test_expression, STATE 1477), (sym_relational_expression, STATE 1477),
     (sym_bitwise_or_expression, STATE 1477), (sym_bitwise_xor_expression, STATE 1477),
     (sym_bitwise_and_expression, STATE 1477), (sym_shift_expression, STATE 1477),
     (sym_additive_expression, STATE 1477), (sym_multiplicative_expression, STATE 1477),
     (sym__unary_expression, STATE 1121), (sym_unary_expression, STATE 1303),
     (sym__postfix_expression, STATE 1303), (sym_postfix_expression, STATE 1301),
     (sym_prefix_operator, STATE 431), (sym_negation_operator, STATE 1450),
     (sym__exclamation_operator, STATE 1451), (sym_tilde_operator, STATE 1385),
     (sym_await_expression, STATE 1302), (sym_new_expression, STATE 962),
     (sym_const_object_expression, STATE 962), (sym__primary, STATE 668),
     (sym_parenthesized_expression, STATE 962), (sym_constructor_invocation, STATE 643),
     (sym_constructor_tearoff, STATE 962), (sym_type_arguments, STATE 3200),
     (sym__statement, STATE 539), (sym_local_function_declaration, STATE 533),
     (sym_block, STATE 527), (sym_expression_statement, STATE 527),
     (sym_assert_statement, STATE 527), (sym_assertion, STATE 3380),
     (sym_switch_statement, STATE 527), (sym_switch_expression, STATE 962),
     (sym__parenthesized_pattern, STATE 3182), (sym_list_pattern, STATE 3182),
     (sym_map_pattern, STATE 3182), (sym_record_pattern, STATE 3182),
     (sym_object_pattern, STATE 3182), (sym_pattern_variable_declaration, STATE 3176),
     (sym__outer_pattern, STATE 3410), (sym_pattern_assignment, STATE 908),
     (sym_do_statement, STATE 527), (sym_break_statement, STATE 527),
     (sym_continue_statement, STATE 527), (sym_yield_statement, STATE 527),
     (sym_yield_each_statement, STATE 527), (sym_return_statement, STATE 527),
     (sym_try_statement, STATE 527), (sym__try_head, STATE 464), (sym_if_statement, STATE 527),
     (sym_while_statement, STATE 527), (sym_for_statement, STATE 527),
     (sym_annotation, STATE 1361), (sym__metadata, STATE 1059),
     (sym_type_parameters, STATE 2932), (sym_initialized_variable_definition, STATE 3176),
     (sym__declared_identifier, STATE 2667), (sym__final_const_var_or_type, STATE 3411),
     (sym__type, STATE 2530), (sym__type_not_function, STATE 1796),
     (sym__type_not_void_not_function, STATE 1896), (sym_function_type, STATE 1848),
     (aux_sym__function_type_tails, STATE 1605), (sym__function_type_tail, STATE 1704),
     (sym_record_type, STATE 1805), (sym__type_name, STATE 2004), (sym__var_or_type, STATE 2755),
     (sym_inferred_type, STATE 1771), (sym_function_signature, STATE 2368),
     (sym__formal_parameter_part, STATE 2339), (sym_formal_parameter_list, STATE 2020),
     (sym__strict_formal_parameter_list, STATE 2016),
     (sym_local_variable_declaration, STATE 542), (sym__covariant, STATE 1795),
     (sym__function_builtin_identifier, STATE 1463), (sym__get, STATE 2500),
     (sym__set, STATE 2500), (sym__new_builtin, STATE 2079), (sym_final_builtin, STATE 1764),
     (sym__late_builtin, STATE 1915), (sym_this, STATE 962), (sym_super, STATE 1337),
     (sym_comment, STATE 33), (sym_documentation_comment, STATE 33),
     (aux_sym_string_literal_repeat1, STATE 474), (aux_sym__metadata_repeat1, STATE 1308),
     (sym_identifier, ACTIONS 71), (anon_sym_POUND, ACTIONS 73),
     (sym_decimal_integer_literal, ACTIONS 75), (sym_hex_integer_literal, ACTIONS 77),
     (sym_decimal_floating_point_literal, ACTIONS 75), (anon_sym_true, ACTIONS 79),
     (anon_sym_false, ACTIONS 81), (anon_sym_DQUOTE, ACTIONS 83), (anon_sym_SQUOTE, ACTIONS 85),
     (anon_sym_DQUOTE_DQUOTE_DQUOTE, ACTIONS 87), (anon_sym_SQUOTE_SQUOTE_SQUOTE, ACTIONS 89),
     (anon_sym_r_DQUOTE, ACTIONS 91), (anon_sym_r_SQUOTE, ACTIONS 93),
     (anon_sym_r_DQUOTE_DQUOTE_DQUOTE, ACTIONS 95),
     (anon_sym_r_SQUOTE_SQUOTE_SQUOTE, ACTIONS 97), (anon_sym_LBRACE, ACTIONS 378),
     (anon_sym_LBRACK, ACTIONS 103), (anon_sym_null, ACTIONS 105),
     (anon_sym_LPAREN, ACTIONS 107), (anon_sym_throw, ACTIONS 109), (anon_sym_LT, ACTIONS 111),
     (sym_increment_operator, ACTIONS 113), (sym_minus_operator, ACTIONS 117),
     (anon_sym_BANG, ACTIONS 119), (anon_sym_TILDE, ACTIONS 121), (anon_sym_await, ACTIONS 380),
     (anon_sym_switch, ACTIONS 125), (anon_sym_do, ACTIONS 127), (anon_sym_while, ACTIONS 382),
     (anon_sym_continue, ACTIONS 131), (anon_sym_yield, ACTIONS 133),
     (anon_sym_return, ACTIONS 135), (anon_sym_try, ACTIONS 137), (anon_sym_if, ACTIONS 384),
     (anon_sym_for, ACTIONS 386), (anon_sym_AT, ACTIONS 143), (anon_sym_final, ACTIONS 145),
     (sym_void_type, ACTIONS 33), (anon_sym_var, ACTIONS 35), (sym_break_builtin, ACTIONS 147),
     (sym_assert_builtin, ACTIONS 149), (sym_rethrow_builtin, ACTIONS 151),
     (anon_sym_covariant, ACTIONS 153), (anon_sym_Function, ACTIONS 45),
     (anon_sym_get, ACTIONS 47), (anon_sym_set, ACTIONS 61), (anon_sym_new, ACTIONS 155),
     (sym_const_builtin, ACTIONS 157), (anon_sym_late, ACTIONS 67), (anon_sym_this, ACTIONS 159),
     (anon_sym_super, ACTIONS 161), (anon_sym_SLASH_SLASH, ACTIONS 3),
     (anon_sym_SLASH_STAR, ACTIONS 5), (anon_sym_SLASH_SLASH_SLASH, ACTIONS 7),
     (sym__block_comment, ACTIONS 9), (sym__documentation_block_comment, ACTIONS 11)]"

lemma row_ok_33: "table_row_ok 33 ts_parse_table_33"
  by (simp add: row_simps ts_parse_table_33_def)

definition ts_parse_table_34 :: table_row where
  "ts_parse_table_34 = [
     (sym__bool_literal, STATE 989), (sym__numeric_literal, STATE 989),
     (sym__literal, STATE 962), (sym_symbol_literal, STATE 989), (sym_true, STATE 900),
     (sym_false, STATE 900), (sym_string_literal, STATE 989),
     (sym__string_literal_double_quotes, STATE 627),
     (sym__string_literal_single_quotes, STATE 627),
     (sym__string_literal_double_quotes_multiple, STATE 627),
     (sym__string_literal_single_quotes_multiple, STATE 627),
     (sym__raw_string_literal_double_quotes, STATE 627),
     (sym__raw_string_literal_single_quotes, STATE 627),
     (sym__raw_string_literal_double_quotes_multiple, STATE 627),
     (sym__raw_string_literal_single_quotes_multiple, STATE 627), (sym_list_literal, STATE 989),
     (sym_set_or_map_literal, STATE 989), (sym_null_literal, STATE 989),
     (sym_record_literal, STATE 989), (sym__record_literal_no_const, STATE 924),
     (sym__expression, STATE 3203), (sym__real_expression, STATE 660),
     (sym_throw_expression, STATE 908), (sym_rethrow_expression, STATE 908),
     (sym_assignment_expression, STATE 908), (sym_assignable_expression, STATE 1940),
     (sym_lambda_expression, STATE 534), (sym_function_expression, STATE 962),
     (sym_if_null_expression, STATE 1477), (sym_conditional_expression, STATE 1477),
     (sym_logical_or_expression, STATE 1477), (sym_logical_and_expression, STATE 1477),
     (sym_equality_expression, STATE 1477), (sym_type_cast_expression, STATE 1477),
     (sym_type_test_expression, STATE 1477), (sym_relational_expression, STATE 1477),
     (sym_bitwise_or_expression, STATE 1477), (sym_bitwise_xor_expression, STATE 1477),
     (sym_bitwise_and_expression, STATE 1477), (sym_shift_expression, STATE 1477),
     (sym_additive_expression, STATE 1477), (sym_multiplicative_expression, STATE 1477),
     (sym__unary_expression, STATE 1121), (sym_unary_expression, STATE 1303),
     (sym__postfix_expression, STATE 1303), (sym_postfix_expression, STATE 1301),
     (sym_prefix_operator, STATE 431), (sym_negation_operator, STATE 1450),
     (sym__exclamation_operator, STATE 1451), (sym_tilde_operator, STATE 1385),
     (sym_await_expression, STATE 1302), (sym_new_expression, STATE 962),
     (sym_const_object_expression, STATE 962), (sym__primary, STATE 668),
     (sym_parenthesized_expression, STATE 962), (sym_constructor_invocation, STATE 643),
     (sym_constructor_tearoff, STATE 962), (sym_type_arguments, STATE 3200),
     (sym__statement, STATE 545), (sym_local_function_declaration, STATE 533),
     (sym_block, STATE 527), (sym_expression_statement, STATE 527),
     (sym_assert_statement, STATE 527), (sym_assertion, STATE 3380),
     (sym_switch_statement, STATE 527), (sym_switch_expression, STATE 962),
     (sym__parenthesized_pattern, STATE 3182), (sym_list_pattern, STATE 3182),
     (sym_map_pattern, STATE 3182), (sym_record_pattern, STATE 3182),
     (sym_object_pattern, STATE 3182), (sym_pattern_variable_declaration, STATE 3176),
     (sym__outer_pattern, STATE 3410), (sym_pattern_assignment, STATE 908),
     (sym_do_statement, STATE 527), (sym_break_statement, STATE 527),
     (sym_continue_statement, STATE 527), (sym_yield_statement, STATE 527),
     (sym_yield_each_statement, STATE 527), (sym_return_statement, STATE 527),
     (sym_try_statement, STATE 527), (sym__try_head, STATE 464), (sym_if_statement, STATE 527),
     (sym_while_statement, STATE 527), (sym_for_statement, STATE 527),
     (sym_annotation, STATE 1361), (sym__metadata, STATE 1059),
     (sym_type_parameters, STATE 2932), (sym_initialized_variable_definition, STATE 3176),
     (sym__declared_identifier, STATE 2667), (sym__final_const_var_or_type, STATE 3411),
     (sym__type, STATE 2530), (sym__type_not_function, STATE 1796),
     (sym__type_not_void_not_function, STATE 1896), (sym_function_type, STATE 1848),
     (aux_sym__function_type_tails, STATE 1605), (sym__function_type_tail, STATE 1704),
     (sym_record_type, STATE 1805), (sym__type_name, STATE 2004), (sym__var_or_type, STATE 2755),
     (sym_inferred_type, STATE 1771), (sym_function_signature, STATE 2368),
     (sym__formal_parameter_part, STATE 2339), (sym_formal_parameter_list, STATE 2020),
     (sym__strict_formal_parameter_list, STATE 2016),
     (sym_local_variable_declaration, STATE 542), (sym__covariant, STATE 1795),
     (sym__function_builtin_identifier, STATE 1463), (sym__get, STATE 2500),
     (sym__set, STATE 2500), (sym__new_builtin, STATE 2079), (sym_final_builtin, STATE 1764),
     (sym__late_builtin, STATE 1915), (sym_this, STATE 962), (sym_super, STATE 1337),
     (sym_comment, STATE 34), (sym_documentation_comment, STATE 34),
     (aux_sym_string_literal_repeat1, STATE 474), (aux_sym__metadata_repeat1, STATE 1308),
     (sym_identifier, ACTIONS 71), (anon_sym_POUND, ACTIONS 73),
     (sym_decimal_integer_literal, ACTIONS 75), (sym_hex_integer_literal, ACTIONS 77),
     (sym_decimal_floating_point_literal, ACTIONS 75), (anon_sym_true, ACTIONS 79),
     (anon_sym_false, ACTIONS 81), (anon_sym_DQUOTE, ACTIONS 83), (anon_sym_SQUOTE, ACTIONS 85),
     (anon_sym_DQUOTE_DQUOTE_DQUOTE, ACTIONS 87), (anon_sym_SQUOTE_SQUOTE_SQUOTE, ACTIONS 89),
     (anon_sym_r_DQUOTE, ACTIONS 91), (anon_sym_r_SQUOTE, ACTIONS 93),
     (anon_sym_r_DQUOTE_DQUOTE_DQUOTE, ACTIONS 95),
     (anon_sym_r_SQUOTE_SQUOTE_SQUOTE, ACTIONS 97), (anon_sym_LBRACE, ACTIONS 378),
     (anon_sym_LBRACK, ACTIONS 103), (anon_sym_null, ACTIONS 105),
     (anon_sym_LPAREN, ACTIONS 107), (anon_sym_throw, ACTIONS 109), (anon_sym_LT, ACTIONS 111),
     (sym_increment_operator, ACTIONS 113), (sym_minus_operator, ACTIONS 117),
     (anon_sym_BANG, ACTIONS 119), (anon_sym_TILDE, ACTIONS 121), (anon_sym_await, ACTIONS 380),
     (anon_sym_switch, ACTIONS 125), (anon_sym_do, ACTIONS 127), (anon_sym_while, ACTIONS 382),
     (anon_sym_continue, ACTIONS 131), (anon_sym_yield, ACTIONS 133),
     (anon_sym_return, ACTIONS 135), (anon_sym_try, ACTIONS 137), (anon_sym_if, ACTIONS 384),
     (anon_sym_for, ACTIONS 386), (anon_sym_AT, ACTIONS 143), (anon_sym_final, ACTIONS 145),
     (sym_void_type, ACTIONS 33), (anon_sym_var, ACTIONS 35), (sym_break_builtin, ACTIONS 147),
     (sym_assert_builtin, ACTIONS 149), (sym_rethrow_builtin, ACTIONS 151),
     (anon_sym_covariant, ACTIONS 153), (anon_sym_Function, ACTIONS 45),
     (anon_sym_get, ACTIONS 47), (anon_sym_set, ACTIONS 61), (anon_sym_new, ACTIONS 155),
     (sym_const_builtin, ACTIONS 157), (anon_sym_late, ACTIONS 67), (anon_sym_this, ACTIONS 159),
     (anon_sym_super, ACTIONS 161), (anon_sym_SLASH_SLASH, ACTIONS 3),
     (anon_sym_SLASH_STAR, ACTIONS 5), (anon_sym_SLASH_SLASH_SLASH, ACTIONS 7),
     (sym__block_comment, ACTIONS 9), (sym__documentation_block_comment, ACTIONS 11)]"

lemma row_ok_34: "table_row_ok 34 ts_parse_table_34"
  by (simp add: row_simps ts_parse_table_34_def)

definition ts_parse_table_35 :: table_row where
  "ts_parse_table_35 = [
     (sym__bool_literal, STATE 989), (sym__numeric_literal, STATE 989),
     (sym__literal, STATE 962), (sym_symbol_literal, STATE 989), (sym_true, STATE 900),
     (sym_false, STATE 900), (sym_string_literal, STATE 989),
     (sym__string_literal_double_quotes, STATE 627),
     (sym__string_literal_single_quotes, STATE 627),
     (sym__string_literal_double_quotes_multiple, STATE 627),
     (sym__string_literal_single_quotes_multiple, STATE 627),
     (sym__raw_string_literal_double_quotes, STATE 627),
     (sym__raw_string_literal_single_quotes, STATE 627),
     (sym__raw_string_literal_double_quotes_multiple, STATE 627),
     (sym__raw_string_literal_single_quotes_multiple, STATE 627), (sym_list_literal, STATE 989),
     (sym_set_or_map_literal, STATE 989), (sym_null_literal, STATE 989),
     (sym_record_literal, STATE 989), (sym__record_literal_no_const, STATE 924),
     (sym__expression, STATE 3203), (sym__real_expression, STATE 660),
     (sym_throw_expression, STATE 908), (sym_rethrow_expression, STATE 908),
     (sym_assignment_expression, STATE 908), (sym_assignable_expression, STATE 1940),
     (sym_lambda_expression, STATE 534), (sym_function_expression, STATE 962),
     (sym_if_null_expression, STATE 1477), (sym_conditional_expression, STATE 1477),
     (sym_logical_or_expression, STATE 1477), (sym_logical_and_expression, STATE 1477),
     (sym_equality_expression, STATE 1477), (sym_type_cast_expression, STATE 1477),
     (sym_type_test_expression, STATE 1477), (sym_relational_expression, STATE 1477),
     (sym_bitwise_or_expression, STATE 1477), (sym_bitwise_xor_expression, STATE 1477),
     (sym_bitwise_and_expression, STATE 1477), (sym_shift_expression, STATE 1477),
     (sym_additive_expression, STATE 1477), (sym_multiplicative_expression, STATE 1477),
     (sym__unary_expression, STATE 1121), (sym_unary_expression, STATE 1303),
     (sym__postfix_expression, STATE 1303), (sym_postfix_expression, STATE 1301),
     (sym_prefix_operator, STATE 431), (sym_negation_operator, STATE 1450),
     (sym__exclamation_operator, STATE 1451), (sym_tilde_operator, STATE 1385),
     (sym_await_expression, STATE 1302), (sym_new_expression, STATE 962),
     (sym_const_object_expression, STATE 962), (sym__primary, STATE 668),
     (sym_parenthesized_expression, STATE 962), (sym_constructor_invocation, STATE 643),
     (sym_constructor_tearoff, STATE 962), (sym_type_arguments, STATE 3200),
     (sym__statement, STATE 537), (sym_local_function_declaration, STATE 533),
     (sym_block, STATE 527), (sym_expression_statement, STATE 527),
     (sym_assert_statement, STATE 527), (sym_assertion, STATE 3380),
     (sym_switch_statement, STATE 527), (sym_switch_expression, STATE 962),
     (sym__parenthesized_pattern, STATE 3182), (sym_list_pattern, STATE 3182),
     (sym_map_pattern, STATE 3182), (sym_record_pattern, STATE 3182),
     (sym_object_pattern, STATE 3182), (sym_pattern_variable_declaration, STATE 3176),
     (sym__outer_pattern, STATE 3410), (sym_pattern_assignment, STATE 908),
     (sym_do_statement, STATE 527), (sym_break_statement, STATE 527),
     (sym_continue_statement, STATE 527), (sym_yield_statement, STATE 527),
     (sym_yield_each_statement, STATE 527), (sym_return_statement, STATE 527),
     (sym_try_statement, STATE 527), (sym__try_head, STATE 464), (sym_if_statement, STATE 527),
     (sym_while_statement, STATE 527), (sym_for_statement, STATE 527),
     (sym_annotation, STATE 1361), (sym__metadata, STATE 1059),
     (sym_type_parameters, STATE 2932), (sym_initialized_variable_definition, STATE 3176),
     (sym__declared_identifier, STATE 2667), (sym__final_const_var_or_type, STATE 3411),
     (sym__type, STATE 2530), (sym__type_not_function, STATE 1796),
     (sym__type_not_void_not_function, STATE 1896), (sym_function_type, STATE 1848),
     (aux_sym__function_type_tails, STATE 1605), (sym__function_type_tail, STATE 1704),
     (sym_record_type, STATE 1805), (sym__type_name, STATE 2004), (sym__var_or_type, STATE 2755),
     (sym_inferred_type, STATE 1771), (sym_function_signature, STATE 2368),
     (sym__formal_parameter_part, STATE 2339), (sym_formal_parameter_list, STATE 2020),
     (sym__strict_formal_parameter_list, STATE 2016),
     (sym_local_variable_declaration, STATE 542), (sym__covariant, STATE 1795),
     (sym__function_builtin_identifier, STATE 1463), (sym__get, STATE 2500),
     (sym__set, STATE 2500), (sym__new_builtin, STATE 2079), (sym_final_builtin, STATE 1764),
     (sym__late_builtin, STATE 1915), (sym_this, STATE 962), (sym_super, STATE 1337),
     (sym_comment, STATE 35), (sym_documentation_comment, STATE 35),
     (aux_sym_string_literal_repeat1, STATE 474), (aux_sym__metadata_repeat1, STATE 1308),
     (sym_identifier, ACTIONS 71), (anon_sym_POUND, ACTIONS 73),
     (sym_decimal_integer_literal, ACTIONS 75), (sym_hex_integer_literal, ACTIONS 77),
     (sym_decimal_floating_point_literal, ACTIONS 75), (anon_sym_true, ACTIONS 79),
     (anon_sym_false, ACTIONS 81), (anon_sym_DQUOTE, ACTIONS 83), (anon_sym_SQUOTE, ACTIONS 85),
     (anon_sym_DQUOTE_DQUOTE_DQUOTE, ACTIONS 87), (anon_sym_SQUOTE_SQUOTE_SQUOTE, ACTIONS 89),
     (anon_sym_r_DQUOTE, ACTIONS 91), (anon_sym_r_SQUOTE, ACTIONS 93),
     (anon_sym_r_DQUOTE_DQUOTE_DQUOTE, ACTIONS 95),
     (anon_sym_r_SQUOTE_SQUOTE_SQUOTE, ACTIONS 97), (anon_sym_LBRACE, ACTIONS 378),
     (anon_sym_LBRACK, ACTIONS 103), (anon_sym_null, ACTIONS 105),
     (anon_sym_LPAREN, ACTIONS 107), (anon_sym_throw, ACTIONS 109), (anon_sym_LT, ACTIONS 111),
     (sym_increment_operator, ACTIONS 113), (sym_minus_operator, ACTIONS 117),
     (anon_sym_BANG, ACTIONS 119), (anon_sym_TILDE, ACTIONS 121), (anon_sym_await, ACTIONS 380),
     (anon_sym_switch, ACTIONS 125), (anon_sym_do, ACTIONS 127), (anon_sym_while, ACTIONS 382),
     (anon_sym_continue, ACTIONS 131), (anon_sym_yield, ACTIONS 133),
     (anon_sym_return, ACTIONS 135), (anon_sym_try, ACTIONS 137), (anon_sym_if, ACTIONS 384),
     (anon_sym_for, ACTIONS 386), (anon_sym_AT, ACTIONS 143), (anon_sym_final, ACTIONS 145),
     (sym_void_type, ACTIONS 33), (anon_sym_var, ACTIONS 35), (sym_break_builtin, ACTIONS 147),
     (sym_assert_builtin, ACTIONS 149), (sym_rethrow_builtin, ACTIONS 151),
     (anon_sym_covariant, ACTIONS 153), (anon_sym_Function, ACTIONS 45),
     (anon_sym_get, ACTIONS 47), (anon_sym_set, ACTIONS 61), (anon_sym_new, ACTIONS 155),
     (sym_const_builtin, ACTIONS 157), (anon_sym_late, ACTIONS 67), (anon_sym_this, ACTIONS 159),
     (anon_sym_super, ACTIONS 161), (anon_sym_SLASH_SLASH, ACTIONS 3),
     (anon_sym_SLASH_STAR, ACTIONS 5), (anon_sym_SLASH_SLASH_SLASH, ACTIONS 7),
     (sym__block_comment, ACTIONS 9), (sym__documentation_block_comment, ACTIONS 11)]"

lemma row_ok_35: "table_row_ok 35 ts_parse_table_35"
  by (simp add: row_simps ts_parse_table_35_def)

definition ts_parse_table_36 :: table_row where
  "ts_parse_table_36 = [
     (sym__bool_literal, STATE 989), (sym__numeric_literal, STATE 989),
     (sym__literal, STATE 962), (sym_symbol_literal, STATE 989), (sym_true, STATE 900),
     (sym_false, STATE 900), (sym_string_literal, STATE 989),
     (sym__string_literal_double_quotes, STATE 627),
     (sym__string_literal_single_quotes, STATE 627),
     (sym__string_literal_double_quotes_multiple, STATE 627),
     (sym__string_literal_single_quotes_multiple, STATE 627),
     (sym__raw_string_literal_double_quotes, STATE 627),
     (sym__raw_string_literal_single_quotes, STATE 627),
     (sym__raw_string_literal_double_quotes_multiple, STATE 627),
     (sym__raw_string_literal_single_quotes_multiple, STATE 627), (sym_list_literal, STATE 989),
     (sym_set_or_map_literal, STATE 989), (sym_null_literal, STATE 989),
     (sym_record_literal, STATE 989), (sym__record_literal_no_const, STATE 924),
     (sym__expression, STATE 3203), (sym__real_expression, STATE 660),
     (sym_throw_expression, STATE 908), (sym_rethrow_expression, STATE 908),
     (sym_assignment_expression, STATE 908), (sym_assignable_expression, STATE 1940),
     (sym_lambda_expression, STATE 534), (sym_function_expression, STATE 962),
     (sym_if_null_expression, STATE 1477), (sym_conditional_expression, STATE 1477),
     (sym_logical_or_expression, STATE 1477), (sym_logical_and_expression, STATE 1477),
     (sym_equality_expression, STATE 1477), (sym_type_cast_expression, STATE 1477),
     (sym_type_test_expression, STATE 1477), (sym_relational_expression, STATE 1477),
     (sym_bitwise_or_expression, STATE 1477), (sym_bitwise_xor_expression, STATE 1477),
     (sym_bitwise_and_expression, STATE 1477), (sym_shift_expression, STATE 1477),
     (sym_additive_expression, STATE 1477), (sym_multiplicative_expression, STATE 1477),
     (sym__unary_expression, STATE 1121), (sym_unary_expression, STATE 1303),
     (sym__postfix_expression, STATE 1303), (sym_postfix_expression, STATE 1301),
     (sym_prefix_operator, STATE 431), (sym_negation_operator, STATE 1450),
     (sym__exclamation_operator, STATE 1451), (sym_tilde_operator, STATE 1385),
     (sym_await_expression, STATE 1302), (sym_new_expression, STATE 962),
     (sym_const_object_expression, STATE 962), (sym__primary, STATE 668),
     (sym_parenthesized_expression, STATE 962), (sym_constructor_invocation, STATE 643),
     (sym_constructor_tearoff, STATE 962), (sym_type_arguments, STATE 3200),
     (sym__statement, STATE 539), (sym_local_function_declaration, STATE 533),
     (sym_block, STATE 527), (sym_expression_statement, STATE 527),
     (sym_assert_statement, STATE 527), (sym_assertion, STATE 3380),
     (sym_switch_statement, STATE 527), (sym_switch_expression, STATE 962),
     (sym__parenthesized_pattern, STATE 3182), (sym_list_pattern, STATE 3182),
     (sym_map_pattern, STATE 3182), (sym_record_pattern, STATE 3182),
     (sym_object_pattern, STATE 3182), (sym_pattern_variable_declaration, STATE 3176),
     (sym__outer_pattern, STATE 3410), (sym_pattern_assignment, STATE 908),
     (sym_do_statement, STATE 527), (sym_break_statement, STATE 527),
     (sym_continue_statement, STATE 527), (sym_yield_statement, STATE 527),
     (sym_yield_each_statement, STATE 527), (sym_return_statement, STATE 527),
     (sym_try_statement, STATE 527), (sym__try_head, STATE 464), (sym_if_statement, STATE 527),
     (sym_while_statement, STATE 527), (sym_for_statement, STATE 527),
     (sym_annotation, STATE 1361), (sym__metadata, STATE 1059),
     (sym_type_parameters, STATE 2932), (sym_initialized_variable_definition, STATE 3176),
     (sym__declared_identifier, STATE 2667), (sym__final_const_var_or_type, STATE 3411),
     (sym__type, STATE 2530), (sym__type_not_function, STATE 1796),
     (sym__type_not_void_not_function, STATE 1896), (sym_function_type, STATE 1848),
     (aux_sym__function_type_tails, STATE 1605), (sym__function_type_tail, STATE 1704),
     (sym_record_type, STATE 1805), (sym__type_name, STATE 2004), (sym__var_or_type, STATE 2755),
     (sym_inferred_type, STATE 1771), (sym_function_signature, STATE 2368),
     (sym__formal_parameter_part, STATE 2339), (sym_formal_parameter_list, STATE 2020),
     (sym__strict_formal_parameter_list, STATE 2016),
     (sym_local_variable_declaration, STATE 542), (sym__covariant, STATE 1795),
     (sym__function_builtin_identifier, STATE 1463), (sym__get, STATE 2500),
     (sym__set, STATE 2500), (sym__new_builtin, STATE 2079), (sym_final_builtin, STATE 1764),
     (sym__late_builtin, STATE 1915), (sym_this, STATE 962), (sym_super, STATE 1337),
     (sym_comment, STATE 36), (sym_documentation_comment, STATE 36),
     (aux_sym_string_literal_repeat1, STATE 474), (aux_sym__metadata_repeat1, STATE 1308),
     (sym_identifier, ACTIONS 71), (anon_sym_POUND, ACTIONS 73),
     (sym_decimal_integer_literal, ACTIONS 75), (sym_hex_integer_literal, ACTIONS 77),
     (sym_decimal_floating_point_literal, ACTIONS 75), (anon_sym_true, ACTIONS 79),
     (anon_sym_false, ACTIONS 81), (anon_sym_DQUOTE, ACTIONS 83), (anon_sym_SQUOTE, ACTIONS 85),
     (anon_sym_DQUOTE_DQUOTE_DQUOTE, ACTIONS 87), (anon_sym_SQUOTE_SQUOTE_SQUOTE, ACTIONS 89),
     (anon_sym_r_DQUOTE, ACTIONS 91), (anon_sym_r_SQUOTE, ACTIONS 93),
     (anon_sym_r_DQUOTE_DQUOTE_DQUOTE, ACTIONS 95),
     (anon_sym_r_SQUOTE_SQUOTE_SQUOTE, ACTIONS 97), (anon_sym_LBRACE, ACTIONS 172),
     (anon_sym_LBRACK, ACTIONS 103), (anon_sym_null, ACTIONS 105),
     (anon_sym_LPAREN, ACTIONS 107), (anon_sym_throw, ACTIONS 109), (anon_sym_LT, ACTIONS 111),
     (sym_increment_operator, ACTIONS 113), (sym_minus_operator, ACTIONS 117),
     (anon_sym_BANG, ACTIONS 119), (anon_sym_TILDE, ACTIONS 121), (anon_sym_await, ACTIONS 176),
     (anon_sym_switch, ACTIONS 125), (anon_sym_do, ACTIONS 127), (anon_sym_while, ACTIONS 129),
     (anon_sym_continue, ACTIONS 131), (anon_sym_yield, ACTIONS 133),
     (anon_sym_return, ACTIONS 135), (anon_sym_try, ACTIONS 137), (anon_sym_if, ACTIONS 180),
     (anon_sym_for, ACTIONS 182), (anon_sym_AT, ACTIONS 143), (anon_sym_final, ACTIONS 145),
     (sym_void_type, ACTIONS 33), (anon_sym_var, ACTIONS 35), (sym_break_builtin, ACTIONS 147),
     (sym_assert_builtin, ACTIONS 149), (sym_rethrow_builtin, ACTIONS 151),
     (anon_sym_covariant, ACTIONS 153), (anon_sym_Function, ACTIONS 45),
     (anon_sym_get, ACTIONS 47), (anon_sym_set, ACTIONS 61), (anon_sym_new, ACTIONS 155),
     (sym_const_builtin, ACTIONS 157), (anon_sym_late, ACTIONS 67), (anon_sym_this, ACTIONS 159),
     (anon_sym_super, ACTIONS 161), (anon_sym_SLASH_SLASH, ACTIONS 3),
     (anon_sym_SLASH_STAR, ACTIONS 5), (anon_sym_SLASH_SLASH_SLASH, ACTIONS 7),
     (sym__block_comment, ACTIONS 9), (sym__documentation_block_comment, ACTIONS 11)]"

lemma row_ok_36: "table_row_ok 36 ts_parse_table_36"
  by (simp add: row_simps ts_parse_table_36_def)

definition ts_parse_table_37 :: table_row where
  "ts_parse_table_37 = [
     (sym__bool_literal, STATE 989), (sym__numeric_literal, STATE 989),
     (sym__literal, STATE 962), (sym_symbol_literal, STATE 989), (sym_true, STATE 900),
     (sym_false, STATE 900), (sym_string_literal, STATE 989),
     (sym__string_literal_double_quotes, STATE 627),
     (sym__string_literal_single_quotes, STATE 627),
     (sym__string_literal_double_quotes_multiple, STATE 627),
     (sym__string_literal_single_quotes_multiple, STATE 627),
     (sym__raw_string_literal_double_quotes, STATE 627),
     (sym__raw_string_literal_single_quotes, STATE 627),
     (sym__raw_string_literal_double_quotes_multiple, STATE 627),
     (sym__raw_string_literal_single_quotes_multiple, STATE 627), (sym_list_literal, STATE 989),
     (sym_set_or_map_literal, STATE 989), (sym_null_literal, STATE 989),
     (sym_record_literal, STATE 989), (sym__record_literal_no_const, STATE 924),
     (sym__expression, STATE 3203), (sym__real_expression, STATE 660),
     (sym_throw_expression, STATE 908), (sym_rethrow_expression, STATE 908),
     (sym_assignment_expression, STATE 908), (sym_assignable_expression, STATE 1940),
     (sym_lambda_expression, STATE 534), (sym_function_expression, STATE 962),
     (sym_if_null_expression, STATE 1477), (sym_conditional_expression, STATE 1477),
     (sym_logical_or_expression, STATE 1477), (sym_logical_and_expression, STATE 1477),
     (sym_equality_expression, STATE 1477), (sym_type_cast_expression, STATE 1477),
     (sym_type_test_expression, STATE 1477), (sym_relational_expression, STATE 1477),
     (sym_bitwise_or_expression, STATE 1477), (sym_bitwise_xor_expression, STATE 1477),
     (sym_bitwise_and_expression, STATE 1477), (sym_shift_expression, STATE 1477),
     (sym_additive_expression, STATE 1477), (sym_multiplicative_expression, STATE 1477),
     (sym__unary_expression, STATE 1121), (sym_unary_expression, STATE 1303),
     (sym__postfix_expression, STATE 1303), (sym_postfix_expression, STATE 1301),
     (sym_prefix_operator, STATE 431), (sym_negation_operator, STATE 1450),
     (sym__exclamation_operator, STATE 1451), (sym_tilde_operator, STATE 1385),
     (sym_await_expression, STATE 1302), (sym_new_expression, STATE 962),
     (sym_const_object_expression, STATE 962), (sym__primary, STATE 668),
     (sym_parenthesized_expression, STATE 962), (sym_constructor_invocation, STATE 643),
     (sym_constructor_tearoff, STATE 962), (sym_type_arguments, STATE 3200),
     (sym__statement, STATE 3450), (sym_local_function_declaration, STATE 533),
     (sym_block, STATE 527), (sym_expression_statement, STATE 527),
     (sym_assert_statement, STATE 527), (sym_assertion, STATE 3380),
     (sym_switch_statement, STATE 527), (sym_switch_expression, STATE 962),
     (sym__parenthesized_pattern, STATE 3182), (sym_list_pattern, STATE 3182),
     (sym_map_pattern, STATE 3182), (sym_record_pattern, STATE 3182),
     (sym_object_pattern, STATE 3182), (sym_pattern_variable_declaration, STATE 3176),
     (sym__outer_pattern, STATE 3410), (sym_pattern_assignment, STATE 908),
     (sym_do_statement, STATE 527), (sym_break_statement, STATE 527),
     (sym_continue_statement, STATE 527), (sym_yield_statement, STATE 527),
     (sym_yield_each_statement, STATE 527), (sym_return_statement, STATE 527),
     (sym_try_statement, STATE 527), (sym__try_head, STATE 464), (sym_if_statement, STATE 527),
     (sym_while_statement, STATE 527), (sym_for_statement, STATE 527),
     (sym_annotation, STATE 1361), (sym__metadata, STATE 1059),
     (sym_type_parameters, STATE 2932), (sym_initialized_variable_definition, STATE 3176),
     (sym__declared_identifier, STATE 2667), (sym__final_const_var_or_type, STATE 3411),
     (sym__type, STATE 2530), (sym__type_not_function, STATE 1796),
     (sym__type_not_void_not_function, STATE 1896), (sym_function_type, STATE 1848),
     (aux_sym__function_type_tails, STATE 1605), (sym__function_type_tail, STATE 1704),
     (sym_record_type, STATE 1805), (sym__type_name, STATE 2004), (sym__var_or_type, STATE 2755),
     (sym_inferred_type, STATE 1771), (sym_function_signature, STATE 2368),
     (sym__formal_parameter_part, STATE 2339), (sym_formal_parameter_list, STATE 2020),
     (sym__strict_formal_parameter_list, STATE 2016),
     (sym_local_variable_declaration, STATE 542), (sym__covariant, STATE 1795),
     (sym__function_builtin_identifier, STATE 1463), (sym__get, STATE 2500),
     (sym__set, STATE 2500), (sym__new_builtin, STATE 2079), (sym_final_builtin, STATE 1764),
     (sym__late_builtin, STATE 1915), (sym_this, STATE 962), (sym_super, STATE 1337),
     (sym_comment, STATE 37), (sym_documentation_comment, STATE 37),
     (aux_sym_string_literal_repeat1, STATE 474), (aux_sym__metadata_repeat1, STATE 1308),
     (sym_identifier, ACTIONS 71), (anon_sym_POUND, ACTIONS 73),
     (sym_decimal_integer_literal, ACTIONS 75), (sym_hex_integer_literal, ACTIONS 77),
     (sym_decimal_floating_point_literal, ACTIONS 75), (anon_sym_true, ACTIONS 79),
     (anon_sym_false, ACTIONS 81), (anon_sym_DQUOTE, ACTIONS 83), (anon_sym_SQUOTE, ACTIONS 85),
     (anon_sym_DQUOTE_DQUOTE_DQUOTE, ACTIONS 87), (anon_sym_SQUOTE_SQUOTE_SQUOTE, ACTIONS 89),
     (anon_sym_r_DQUOTE, ACTIONS 91), (anon_sym_r_SQUOTE, ACTIONS 93),
     (anon_sym_r_DQUOTE_DQUOTE_DQUOTE, ACTIONS 95),
     (anon_sym_r_SQUOTE_SQUOTE_SQUOTE, ACTIONS 97), (anon_sym_LBRACE, ACTIONS 378),
     (anon_sym_LBRACK, ACTIONS 103), (anon_sym_null, ACTIONS 105),
     (anon_sym_LPAREN, ACTIONS 107), (anon_sym_throw, ACTIONS 109), (anon_sym_LT, ACTIONS 111),
     (sym_increment_operator, ACTIONS 113), (sym_minus_operator, ACTIONS 117),
     (anon_sym_BANG, ACTIONS 119), (anon_sym_TILDE, ACTIONS 121), (anon_sym_await, ACTIONS 380),
     (anon_sym_switch, ACTIONS 125), (anon_sym_do, ACTIONS 127), (anon_sym_while, ACTIONS 382),
     (anon_sym_continue, ACTIONS 131), (anon_sym_yield, ACTIONS 133),
     (anon_sym_return, ACTIONS 135), (anon_sym_try, ACTIONS 137), (anon_sym_if, ACTIONS 384),
     (anon_sym_for, ACTIONS 386), (anon_sym_AT, ACTIONS 143), (anon_sym_final, ACTIONS 145),
     (sym_void_type, ACTIONS 33), (anon_sym_var, ACTIONS 35), (sym_break_builtin, ACTIONS 147),
     (sym_assert_builtin, ACTIONS 149), (sym_rethrow_builtin, ACTIONS 151),
     (anon_sym_covariant, ACTIONS 153), (anon_sym_Function, ACTIONS 45),
     (anon_sym_get, ACTIONS 47), (anon_sym_set, ACTIONS 61), (anon_sym_new, ACTIONS 155),
     (sym_const_builtin, ACTIONS 157), (anon_sym_late, ACTIONS 67), (anon_sym_this, ACTIONS 159),
     (anon_sym_super, ACTIONS 161), (anon_sym_SLASH_SLASH, ACTIONS 3),
     (anon_sym_SLASH_STAR, ACTIONS 5), (anon_sym_SLASH_SLASH_SLASH, ACTIONS 7),
     (sym__block_comment, ACTIONS 9), (sym__documentation_block_comment, ACTIONS 11)]"

lemma row_ok_37: "table_row_ok 37 ts_parse_table_37"
  by (simp add: row_simps ts_parse_table_37_def)

definition ts_parse_table_38 :: table_row where
  "ts_parse_table_38 = [
     (sym__bool_literal, STATE 989), (sym__numeric_literal, STATE 989),
     (sym__literal, STATE 962), (sym_symbol_literal, STATE 989), (sym_true, STATE 900),
     (sym_false, STATE 900), (sym_string_literal, STATE 989),
     (sym__string_literal_double_quotes, STATE 627),
     (sym__string_literal_single_quotes, STATE 627),
     (sym__string_literal_double_quotes_multiple, STATE 627),
     (sym__string_literal_single_quotes_multiple, STATE 627),
     (sym__raw_string_literal_double_quotes, STATE 627),
     (sym__raw_string_literal_single_quotes, STATE 627),
     (sym__raw_string_literal_double_quotes_multiple, STATE 627),
     (sym__raw_string_literal_single_quotes_multiple, STATE 627), (sym_list_literal, STATE 989),
     (sym_set_or_map_literal, STATE 989), (sym_null_literal, STATE 989),
     (sym_record_literal, STATE 989), (sym__record_literal_no_const, STATE 924),
     (sym__expression, STATE 3203), (sym__real_expression, STATE 660),
     (sym_throw_expression, STATE 908), (sym_rethrow_expression, STATE 908),
     (sym_assignment_expression, STATE 908), (sym_assignable_expression, STATE 1940),
     (sym_lambda_expression, STATE 534), (sym_function_expression, STATE 962),
     (sym_if_null_expression, STATE 1477), (sym_conditional_expression, STATE 1477),
     (sym_logical_or_expression, STATE 1477), (sym_logical_and_expression, STATE 1477),
     (sym_equality_expression, STATE 1477), (sym_type_cast_expression, STATE 1477),
     (sym_type_test_expression, STATE 1477), (sym_relational_expression, STATE 1477),
     (sym_bitwise_or_expression, STATE 1477), (sym_bitwise_xor_expression, STATE 1477),
     (sym_bitwise_and_expression, STATE 1477), (sym_shift_expression, STATE 1477),
     (sym_additive_expression, STATE 1477), (sym_multiplicative_expression, STATE 1477),
     (sym__unary_expression, STATE 1121), (sym_unary_expression, STATE 1303),
     (sym__postfix_expression, STATE 1303), (sym_postfix_expression, STATE 1301),
     (sym_prefix_operator, STATE 431), (sym_negation_operator, STATE 1450),
     (sym__exclamation_operator, STATE 1451), (sym_tilde_operator, STATE 1385),
     (sym_await_expression, STATE 1302), (sym_new_expression, STATE 962),
     (sym_const_object_expression, STATE 962), (sym__primary, STATE 668),
     (sym_parenthesized_expression, STATE 962), (sym_constructor_invocation, STATE 643),
     (sym_constructor_tearoff, STATE 962), (sym_type_arguments, STATE 3200),
     (sym__statement, STATE 537), (sym_local_function_declaration, STATE 533),
     (sym_block, STATE 527), (sym_expression_statement, STATE 527),
     (sym_assert_statement, STATE 527), (sym_assertion, STATE 3380),
     (sym_switch_statement, STATE 527), (sym_switch_expression, STATE 962),
     (sym__parenthesized_pattern, STATE 3182), (sym_list_pattern, STATE 3182),
     (sym_map_pattern, STATE 3182), (sym_record_pattern, STATE 3182),
     (sym_object_pattern, STATE 3182), (sym_pattern_variable_declaration, STATE 3176),
     (sym__outer_pattern, STATE 3410), (sym_pattern_assignment, STATE 908),
     (sym_do_statement, STATE 527), (sym_break_statement, STATE 527),
     (sym_continue_statement, STATE 527), (sym_yield_statement, STATE 527),
     (sym_yield_each_statement, STATE 527), (sym_return_statement, STATE 527),
     (sym_try_statement, STATE 527), (sym__try_head, STATE 464), (sym_if_statement, STATE 527),
     (sym_while_statement, STATE 527), (sym_for_statement, STATE 527),
     (sym_annotation, STATE 1361), (sym__metadata, STATE 1059),
     (sym_type_parameters, STATE 2932), (sym_initialized_variable_definition, STATE 3176),
     (sym__declared_identifier, STATE 2667), (sym__final_const_var_or_type, STATE 3411),
     (sym__type, STATE 2530), (sym__type_not_function, STATE 1796),
     (sym__type_not_void_not_function, STATE 1896), (sym_function_type, STATE 1848),
     (aux_sym__function_type_tails, STATE 1605), (sym__function_type_tail, STATE 1704),
     (sym_record_type, STATE 1805), (sym__type_name, STATE 2004), (sym__var_or_type, STATE 2755),
     (sym_inferred_type, STATE 1771), (sym_function_signature, STATE 2368),
     (sym__formal_parameter_part, STATE 2339), (sym_formal_parameter_list, STATE 2020),
     (sym__strict_formal_parameter_list, STATE 2016),
     (sym_local_variable_declaration, STATE 542), (sym__covariant, STATE 1795),
     (sym__function_builtin_identifier, STATE 1463), (sym__get, STATE 2500),
     (sym__set, STATE 2500), (sym__new_builtin, STATE 2079), (sym_final_builtin, STATE 1764),
     (sym__late_builtin, STATE 1915), (sym_this, STATE 962), (sym_super, STATE 1337),
     (sym_comment, STATE 38), (sym_documentation_comment, STATE 38),
     (aux_sym_string_literal_repeat1, STATE 474), (aux_sym__metadata_repeat1, STATE 1308),
     (sym_identifier, ACTIONS 71), (anon_sym_POUND, ACTIONS 73),
     (sym_decimal_integer_literal, ACTIONS 75), (sym_hex_integer_literal, ACTIONS 77),
     (sym_decimal_floating_point_literal, ACTIONS 75), (anon_sym_true, ACTIONS 79),
     (anon_sym_false, ACTIONS 81), (anon_sym_DQUOTE, ACTIONS 83), (anon_sym_SQUOTE, ACTIONS 85),
     (anon_sym_DQUOTE_DQUOTE_DQUOTE, ACTIONS 87), (anon_sym_SQUOTE_SQUOTE_SQUOTE, ACTIONS 89),
     (anon_sym_r_DQUOTE, ACTIONS 91), (anon_sym_r_SQUOTE, ACTIONS 93),
     (anon_sym_r_DQUOTE_DQUOTE_DQUOTE, ACTIONS 95),
     (anon_sym_r_SQUOTE_SQUOTE_SQUOTE, ACTIONS 97), (anon_sym_LBRACE, ACTIONS 172),
     (anon_sym_LBRACK, ACTIONS 103), (anon_sym_null, ACTIONS 105),
     (anon_sym_LPAREN, ACTIONS 107), (anon_sym_throw, ACTIONS 109), (anon_sym_LT, ACTIONS 111),
     (sym_increment_operator, ACTIONS 113), (sym_minus_operator, ACTIONS 117),
     (anon_sym_BANG, ACTIONS 119), (anon_sym_TILDE, ACTIONS 121), (anon_sym_await, ACTIONS 176),
     (anon_sym_switch, ACTIONS 125), (anon_sym_do, ACTIONS 127), (anon_sym_while, ACTIONS 129),
     (anon_sym_continue, ACTIONS 131), (anon_sym_yield, ACTIONS 133),
     (anon_sym_return, ACTIONS 135), (anon_sym_try, ACTIONS 137), (anon_sym_if, ACTIONS 180),
     (anon_sym_for, ACTIONS 182), (anon_sym_AT, ACTIONS 143), (anon_sym_final, ACTIONS 145),
     (sym_void_type, ACTIONS 33), (anon_sym_var, ACTIONS 35), (sym_break_builtin, ACTIONS 147),
     (sym_assert_builtin, ACTIONS 149), (sym_rethrow_builtin, ACTIONS 151),
     (anon_sym_covariant, ACTIONS 153), (anon_sym_Function, ACTIONS 45),
     (anon_sym_get, ACTIONS 47), (anon_sym_set, ACTIONS 61), (anon_sym_new, ACTIONS 155),
     (sym_const_builtin, ACTIONS 157), (anon_sym_late, ACTIONS 67), (anon_sym_this, ACTIONS 159),
     (anon_sym_super, ACTIONS 161), (anon_sym_SLASH_SLASH, ACTIONS 3),
     (anon_sym_SLASH_STAR, ACTIONS 5), (anon_sym_SLASH_SLASH_SLASH, ACTIONS 7),
     (sym__block_comment, ACTIONS 9), (sym__documentation_block_comment, ACTIONS 11)]"

lemma row_ok_38: "table_row_ok 38 ts_parse_table_38"
  by (simp add: row_simps ts_parse_table_38_def)

definition ts_parse_table_39 :: table_row where
  "ts_parse_table_39 = [
     (sym__bool_literal, STATE 989), (sym__numeric_literal, STATE 989),
     (sym__literal, STATE 962), (sym_symbol_literal, STATE 989), (sym_true, STATE 900),
     (sym_false, STATE 900), (sym_string_literal, STATE 989),
     (sym__string_literal_double_quotes, STATE 627),
     (sym__string_literal_single_quotes, STATE 627),
     (sym__string_literal_double_quotes_multiple, STATE 627),
     (sym__string_literal_single_quotes_multiple, STATE 627),
     (sym__raw_string_literal_double_quotes, STATE 627),
     (sym__raw_string_literal_single_quotes, STATE 627),
     (sym__raw_string_literal_double_quotes_multiple, STATE 627),
     (sym__raw_string_literal_single_quotes_multiple, STATE 627), (sym_list_literal, STATE 989),
     (sym_set_or_map_literal, STATE 989), (sym_null_literal, STATE 989),
     (sym_record_literal, STATE 989), (sym__record_literal_no_const, STATE 924),
     (sym__expression, STATE 3203), (sym__real_expression, STATE 660),
     (sym_throw_expression, STATE 908), (sym_rethrow_expression, STATE 908),
     (sym_assignment_expression, STATE 908), (sym_assignable_expression, STATE 1940),
     (sym_lambda_expression, STATE 534), (sym_function_expression, STATE 962),
     (sym_if_null_expression, STATE 1477), (sym_conditional_expression, STATE 1477),
     (sym_logical_or_expression, STATE 1477), (sym_logical_and_expression, STATE 1477),
     (sym_equality_expression, STATE 1477), (sym_type_cast_expression, STATE 1477),
     (sym_type_test_expression, STATE 1477), (sym_relational_expression, STATE 1477),
     (sym_bitwise_or_expression, STATE 1477), (sym_bitwise_xor_expression, STATE 1477),
     (sym_bitwise_and_expression, STATE 1477), (sym_shift_expression, STATE 1477),
     (sym_additive_expression, STATE 1477), (sym_multiplicative_expression, STATE 1477),
     (sym__unary_expression, STATE 1121), (sym_unary_expression, STATE 1303),
     (sym__postfix_expression, STATE 1303), (sym_postfix_expression, STATE 1301),
     (sym_prefix_operator, STATE 431), (sym_negation_operator, STATE 1450),
     (sym__exclamation_operator, STATE 1451), (sym_tilde_operator, STATE 1385),
     (sym_await_expression, STATE 1302), (sym_new_expression, STATE 962),
     (sym_const_object_expression, STATE 962), (sym__primary, STATE 668),
     (sym_parenthesized_expression, STATE 962), (sym_constructor_invocation, STATE 643),
     (sym_constructor_tearoff, STATE 962), (sym_type_arguments, STATE 3200),
     (sym__statement, STATE 523), (sym_local_function_declaration, STATE 533),
     (sym_block, STATE 527), (sym_expression_statement, STATE 527),
     (sym_assert_statement, STATE 527), (sym_assertion, STATE 3380),
     (sym_switch_statement, STATE 527), (sym_switch_expression, STATE 962),
     (sym__parenthesized_pattern, STATE 3182), (sym_list_pattern, STATE 3182),
     (sym_map_pattern, STATE 3182), (sym_record_pattern, STATE 3182),
     (sym_object_pattern, STATE 3182), (sym_pattern_variable_declaration, STATE 3176),
     (sym__outer_pattern, STATE 3410), (sym_pattern_assignment, STATE 908),
     (sym_do_statement, STATE 527), (sym_break_statement, STATE 527),
     (sym_continue_statement, STATE 527), (sym_yield_statement, STATE 527),
     (sym_yield_each_statement, STATE 527), (sym_return_statement, STATE 527),
     (sym_try_statement, STATE 527), (sym__try_head, STATE 464), (sym_if_statement, STATE 527),
     (sym_while_statement, STATE 527), (sym_for_statement, STATE 527),
     (sym_annotation, STATE 1361), (sym__metadata, STATE 1059),
     (sym_type_parameters, STATE 2932), (sym_initialized_variable_definition, STATE 3176),
     (sym__declared_identifier, STATE 2667), (sym__final_const_var_or_type, STATE 3411),
     (sym__type, STATE 2530), (sym__type_not_function, STATE 1796),
     (sym__type_not_void_not_function, STATE 1896), (sym_function_type, STATE 1848),
     (aux_sym__function_type_tails, STATE 1605), (sym__function_type_tail, STATE 1704),
     (sym_record_type, STATE 1805), (sym__type_name, STATE 2004), (sym__var_or_type, STATE 2755),
     (sym_inferred_type, STATE 1771), (sym_function_signature, STATE 2368),
     (sym__formal_parameter_part, STATE 2339), (sym_formal_parameter_list, STATE 2020),
     (sym__strict_formal_parameter_list, STATE 2016),
     (sym_local_variable_declaration, STATE 542), (sym__covariant, STATE 1795),
     (sym__function_builtin_identifier, STATE 1463), (sym__get, STATE 2500),
     (sym__set, STATE 2500), (sym__new_builtin, STATE 2079), (sym_final_builtin, STATE 1764),
     (sym__late_builtin, STATE 1915), (sym_this, STATE 962), (sym_super, STATE 1337),
     (sym_comment, STATE 39), (sym_documentation_comment, STATE 39),
     (aux_sym_string_literal_repeat1, STATE 474), (aux_sym__metadata_repeat1, STATE 1308),
     (sym_identifier, ACTIONS 71), (anon_sym_POUND, ACTIONS 73),
     (sym_decimal_integer_literal, ACTIONS 75), (sym_hex_integer_literal, ACTIONS 77),
     (sym_decimal_floating_point_literal, ACTIONS 75), (anon_sym_true, ACTIONS 79),
     (anon_sym_false, ACTIONS 81), (anon_sym_DQUOTE, ACTIONS 83), (anon_sym_SQUOTE, ACTIONS 85),
     (anon_sym_DQUOTE_DQUOTE_DQUOTE, ACTIONS 87), (anon_sym_SQUOTE_SQUOTE_SQUOTE, ACTIONS 89),
     (anon_sym_r_DQUOTE, ACTIONS 91), (anon_sym_r_SQUOTE, ACTIONS 93),
     (anon_sym_r_DQUOTE_DQUOTE_DQUOTE, ACTIONS 95),
     (anon_sym_r_SQUOTE_SQUOTE_SQUOTE, ACTIONS 97), (anon_sym_LBRACE, ACTIONS 172),
     (anon_sym_LBRACK, ACTIONS 103), (anon_sym_null, ACTIONS 105),
     (anon_sym_LPAREN, ACTIONS 107), (anon_sym_throw, ACTIONS 109), (anon_sym_LT, ACTIONS 111),
     (sym_increment_operator, ACTIONS 113), (sym_minus_operator, ACTIONS 117),
     (anon_sym_BANG, ACTIONS 119), (anon_sym_TILDE, ACTIONS 121), (anon_sym_await, ACTIONS 176),
     (anon_sym_switch, ACTIONS 125), (anon_sym_do, ACTIONS 127), (anon_sym_while, ACTIONS 129),
     (anon_sym_continue, ACTIONS 131), (anon_sym_yield, ACTIONS 133),
     (anon_sym_return, ACTIONS 135), (anon_sym_try, ACTIONS 137), (anon_sym_if, ACTIONS 180),
     (anon_sym_for, ACTIONS 182), (anon_sym_AT, ACTIONS 143), (anon_sym_final, ACTIONS 145),
     (sym_void_type, ACTIONS 33), (anon_sym_var, ACTIONS 35), (sym_break_builtin, ACTIONS 147),
     (sym_assert_builtin, ACTIONS 149), (sym_rethrow_builtin, ACTIONS 151),
     (anon_sym_covariant, ACTIONS 153), (anon_sym_Function, ACTIONS 45),
     (anon_sym_get, ACTIONS 47), (anon_sym_set, ACTIONS 61), (anon_sym_new, ACTIONS 155),
     (sym_const_builtin, ACTIONS 157), (anon_sym_late, ACTIONS 67), (anon_sym_this, ACTIONS 159),
     (anon_sym_super, ACTIONS 161), (anon_sym_SLASH_SLASH, ACTIONS 3),
     (anon_sym_SLASH_STAR, ACTIONS 5), (anon_sym_SLASH_SLASH_SLASH, ACTIONS 7),
     (sym__block_comment, ACTIONS 9), (sym__documentation_block_comment, ACTIONS 11)]"

lemma row_ok_39: "table_row_ok 39 ts_parse_table_39"
  by (simp add: row_simps ts_parse_table_39_def)

definition ts_parse_table_rows_1 :: "(TSStateId \<times> table_row) list" where
  "ts_parse_table_rows_1 = [
     (0, ts_parse_table_0), (1, ts_parse_table_1), (2, ts_parse_table_2), (3, ts_parse_table_3),
     (4, ts_parse_table_4), (5, ts_parse_table_5), (6, ts_parse_table_6), (7, ts_parse_table_7),
     (8, ts_parse_table_8), (9, ts_parse_table_9), (10, ts_parse_table_10),
     (11, ts_parse_table_11), (12, ts_parse_table_12), (13, ts_parse_table_13),
     (14, ts_parse_table_14), (15, ts_parse_table_15), (16, ts_parse_table_16),
     (17, ts_parse_table_17), (18, ts_parse_table_18), (19, ts_parse_table_19),
     (20, ts_parse_table_20), (21, ts_parse_table_21), (22, ts_parse_table_22),
     (23, ts_parse_table_23), (24, ts_parse_table_24), (25, ts_parse_table_25),
     (26, ts_parse_table_26), (27, ts_parse_table_27), (28, ts_parse_table_28),
     (29, ts_parse_table_29), (30, ts_parse_table_30), (31, ts_parse_table_31),
     (32, ts_parse_table_32), (33, ts_parse_table_33), (34, ts_parse_table_34),
     (35, ts_parse_table_35), (36, ts_parse_table_36), (37, ts_parse_table_37),
     (38, ts_parse_table_38), (39, ts_parse_table_39)]"

lemma rows_ok_1: "list_all (\<lambda>(s, es). table_row_ok s es) ts_parse_table_rows_1"
  by (simp add: ts_parse_table_rows_1_def
    row_ok_0 row_ok_1 row_ok_2 row_ok_3 row_ok_4 row_ok_5 row_ok_6 row_ok_7 row_ok_8
    row_ok_9 row_ok_10 row_ok_11 row_ok_12 row_ok_13 row_ok_14 row_ok_15 row_ok_16 row_ok_17
    row_ok_18 row_ok_19 row_ok_20 row_ok_21 row_ok_22 row_ok_23 row_ok_24 row_ok_25 row_ok_26
    row_ok_27 row_ok_28 row_ok_29 row_ok_30 row_ok_31 row_ok_32 row_ok_33 row_ok_34 row_ok_35
    row_ok_36 row_ok_37 row_ok_38 row_ok_39)

lemma row_keys_1: "map fst ts_parse_table_rows_1 = [0..<40]"
  by (simp add: ts_parse_table_rows_1_def upt_from_0)

end
