(* ===== verification/Dart_Rows_2.thy ===== *)
theory Dart_Rows_2
  imports Dart_Items
begin

text \<open>
  The rows 40 to 87 of \<^verbatim>\<open>ts_parse_table\<close>, each with the check of its entries.
\<close>

definition ts_parse_table_40 :: table_row where
  "ts_parse_table_40 = [
     (sym__bool_literal, STATE 989), (sym__numeric_literal, STATE 989),
     (sym__literal, STATE 962), (sym_symbol_literal, STATE 989), (sym_true, STATE 900),
     (sym_false, STATE 900), (sym_string_literal, STATE 989),
     (sym__string_literal_double_quotes, STATE 627),
     (sym__string_literal_single_quotes, STATE 627),
     (sym__string_literal_double_quotes_multiple, STATE 627),
     (sym__string_literal_single_quotes_multiple, STATE 627),
     (sym__raw_string_literal_double_quotes, STATE 627),
     (sym__raw_string_literal_single_quotes, STATE 627),
     (sym__raw_string_literal_double_quotes_multiple, STATE 627),
     (sym__raw_string_literal_single_quotes_multiple, STATE 627), (sym_list_literal, STATE 989),
     (sym_set_or_map_literal, STATE 989), (sym_null_literal, STATE 989),
     (sym_record_literal, STATE 989), (sym__record_literal_no_const, STATE 924),
     (sym__expression, STATE 3203), (sym__real_expression, STATE 660),
     (sym_throw_expression, STATE 908), (sym_rethrow_expression, STATE 908),
     (sym_assignment_expression, STATE 908), (sym_assignable_expression, STATE 1940),
     (sym_lambda_expression, STATE 534), (sym_function_expression, STATE 962),
     (sym_if_null_expression, STATE 1477), (sym_conditional_expression, STATE 1477),
     (sym_logical_or_expression, STATE 1477), (sym_logical_and_expression, STATE 1477),
     (sym_equality_expression, STATE 1477), (sym_type_cast_expression, STATE 1477),
     (sym_type_test_expression, STATE 1477), (sym_relational_expression, STATE 1477),
     (sym_bitwise_or_expression, STATE 1477), (sym_bitwise_xor_expression, STATE 1477),
     (sym_bitwise_and_expression, STATE 1477), (sym_shift_expression, STATE 1477),
     (sym_additive_expression, STATE 1477), (sym_multiplicative_expression, STATE 1477),
     (sym__unary_expression, STATE 1121), (sym_unary_expression, STATE 1303),
     (sym__postfix_expression, STATE 1303), (sym_postfix_expression, STATE 1301),
     (sym_prefix_operator, STATE 431), (sym_negation_operator, STATE 1450),
     (sym__exclamation_operator, STATE 1451), (sym_tilde_operator, STATE 1385),
     (sym_await_expression, STATE 1302), (sym_new_expression, STATE 962),
     (sym_const_object_expression, STATE 962), (sym__primary, STATE 668),
     (sym_parenthesized_expression, STATE 962), (sym_constructor_invocation, STATE 643),
     (sym_constructor_tearoff, STATE 962), (sym_type_arguments, STATE 3200),
     (sym__statement, STATE 3121), (sym_local_function_declaration, STATE 533),
     (sym_block, STATE 527), (sym_expression_statement, STATE 527),
     (sym_assert_statement, STATE 527), (sym_assertion, STATE 3380),
     (sym_switch_statement, STATE 527), (sym_switch_expression, STATE 962),
     (sym__parenthesized_pattern, STATE 3182), (sym_list_pattern, STATE 3182),
     (sym_map_pattern, STATE 3182), (sym_record_pattern, STATE 3182),
     (sym_object_pattern, STATE 3182), (sym_pattern_variable_declaration, STATE 3176),
     (sym__outer_pattern, STATE 3410), (sym_pattern_assignment, STATE 908),
     (sym_do_statement, STATE 527), (sym_break_statement, STATE 527),
     (sym_continue_statement, STATE 527), (sym_yield_statement, STATE 527),
     (sym_yield_each_statement, STATE 527), (sym_return_statement, STATE 527),
     (sym_try_statement, STATE 527), (sym__try_head, STATE 464), (sym_if_statement, STATE 527),
     (sym_while_statement, STATE 527), (sym_for_statement, STATE 527),
     (sym_annotation, STATE 1361), (sym__metadata, STATE 1059),
     (sym_type_parameters, STATE 2932), (sym_initialized_variable_definition, STATE 3176),
     (sym__declared_identifier, STATE 2667), (sym__final_const_var_or_type, STATE 3411),
     (sym__type, STATE 2530), (sym__type_not_function, STATE 1796),
     (sym__type_not_void_not_function, STATE 1896), (sym_function_type, STATE 1848),
     (aux_sym__function_type_tails, STATE 1605), (sym__function_type_tail, STATE 1704),
     (sym_record_type, STATE 1805), (sym__type_name, STATE 2004), (sym__var_or_type, STATE 2755),
     (sym_inferred_type, STATE 1771), (sym_function_signature, STATE 2368),
     (sym__formal_parameter_part, STATE 2339), (sym_formal_parameter_list, STATE 2020),
     (sym__strict_formal_parameter_list, STATE 2016),
     (sym_local_variable_declaration, STATE 542), (sym__covariant, STATE 1795),
     (sym__function_builtin_identifier, STATE 1463), (sym__get, STATE 2500),
     (sym__set, STATE 2500), (sym__new_builtin, STATE 2079), (sym_final_builtin, STATE 1764),
     (sym__late_builtin, STATE 1915), (sym_this, STATE 962), (sym_super, STATE 1337),
     (sym_comment, STATE 40), (sym_documentation_comment, STATE 40),
     (aux_sym_string_literal_repeat1, STATE 474), (aux_sym__metadata_repeat1, STATE 1308),
     (sym_identifier, ACTIONS 71), (anon_sym_POUND, ACTIONS 73),
     (sym_decimal_integer_literal, ACTIONS 75), (sym_hex_integer_literal, ACTIONS 77),
     (sym_decimal_floating_point_literal, ACTIONS 75), (anon_sym_true, ACTIONS 79),
     (anon_sym_false, ACTIONS 81), (anon_sym_DQUOTE, ACTIONS 83), (anon_sym_SQUOTE, ACTIONS 85),
     (anon_sym_DQUOTE_DQUOTE_DQUOTE, ACTIONS 87), (anon_sym_SQUOTE_SQUOTE_SQUOTE, ACTIONS 89),
     (anon_sym_r_DQUOTE, ACTIONS 91), (anon_sym_r_SQUOTE, ACTIONS 93),
     (anon_sym_r_DQUOTE_DQUOTE_DQUOTE, ACTIONS 95),
     (anon_sym_r_SQUOTE_SQUOTE_SQUOTE, ACTIONS 97), (anon_sym_LBRACE, ACTIONS 378),
     (anon_sym_LBRACK, ACTIONS 103), (anon_sym_null, ACTIONS 105),
     (anon_sym_LPAREN, ACTIONS 107), (anon_sym_throw, ACTIONS 109), (anon_sym_LT, ACTIONS 111),
     (sym_increment_operator, ACTIONS 113), (sym_minus_operator, ACTIONS 117),
     (anon_sym_BANG, ACTIONS 119), (anon_sym_TILDE, ACTIONS 121), (anon_sym_await, ACTIONS 380),
     (anon_sym_switch, ACTIONS 125), (anon_sym_do, ACTIONS 127), (anon_sym_while, ACTIONS 382),
     (anon_sym_continue, ACTIONS 131), (anon_sym_yield, ACTIONS 133),
     (anon_sym_return, ACTIONS 135), (anon_sym_try, ACTIONS 137), (anon_sym_if, ACTIONS 384),
     (anon_sym_for, ACTIONS 386), (anon_sym_AT, ACTIONS 143), (anon_sym_final, ACTIONS 145),
     (sym_void_type, ACTIONS 33), (anon_sym_var, ACTIONS 35), (sym_break_builtin, ACTIONS 147),
     (sym_assert_builtin, ACTIONS 149), (sym_rethrow_builtin, ACTIONS 151),
     (anon_sym_covariant, ACTIONS 153), (anon_sym_Function, ACTIONS 45),
     (anon_sym_get, ACTIONS 47), (anon_sym_set, ACTIONS 61), (anon_sym_new, ACTIONS 155),
     (sym_const_builtin, ACTIONS 157), (anon_sym_late, ACTIONS 67), (anon_sym_this, ACTIONS 159),
     (anon_sym_super, ACTIONS 161), (anon_sym_SLASH_SLASH, ACTIONS 3),
     (anon_sym_SLASH_STAR, ACTIONS 5), (anon_sym_SLASH_SLASH_SLASH, ACTIONS 7),
     (sym__block_comment, ACTIONS 9), (sym__documentation_block_comment, ACTIONS 11)]"

lemma row_ok_40: "table_row_ok 40 ts_parse_table_40"
  by (simp add: row_simps ts_parse_table_40_def)

definition ts_parse_table_41 :: table_row where
  "ts_parse_table_41 = [
     (sym__bool_literal, STATE 989), (sym__numeric_literal, STATE 989),
     (sym__literal, STATE 962), (sym_symbol_literal, STATE 989), (sym_true, STATE 900),
     (sym_false, STATE 900), (sym_string_literal, STATE 989),
     (sym__string_literal_double_quotes, STATE 627),
     (sym__string_literal_single_quotes, STATE 627),
     (sym__string_literal_double_quotes_multiple, STATE 627),
     (sym__string_literal_single_quotes_multiple, STATE 627),
     (sym__raw_string_literal_double_quotes, STATE 627),
     (sym__raw_string_literal_single_quotes, STATE 627),
     (sym__raw_string_literal_double_quotes_multiple, STATE 627),
     (sym__raw_string_literal_single_quotes_multiple, STATE 627), (sym_list_literal, STATE 989),
     (sym_set_or_map_literal, STATE 989), (sym_null_literal, STATE 989),
     (sym_record_literal, STATE 989), (sym__record_literal_no_const, STATE 924),
     (sym__expression, STATE 3203), (sym__real_expression, STATE 660),
     (sym_throw_expression, STATE 908), (sym_rethrow_expression, STATE 908),
     (sym_assignment_expression, STATE 908), (sym_assignable_expression, STATE 1940),
     (sym_lambda_expression, STATE 534), (sym_function_expression, STATE 962),
     (sym_if_null_expression, STATE 1477), (sym_conditional_expression, STATE 1477),
     (sym_logical_or_expression, STATE 1477), (sym_logical_and_expression, STATE 1477),
     (sym_equality_expression, STATE 1477), (sym_type_cast_expression, STATE 1477),
     (sym_type_test_expression, STATE 1477), (sym_relational_expression, STATE 1477),
     (sym_bitwise_or_expression, STATE 1477), (sym_bitwise_xor_expression, STATE 1477),
     (sym_bitwise_and_expression, STATE 1477), (sym_shift_expression, STATE 1477),
     (sym_additive_expression, STATE 1477), (sym_multiplicative_expression, STATE 1477),
     (sym__unary_expression, STATE 1121), (sym_unary_expression, STATE 1303),
     (sym__postfix_expression, STATE 1303), (sym_postfix_expression, STATE 1301),
     (sym_prefix_operator, STATE 431), (sym_negation_operator, STATE 1450),
     (sym__exclamation_operator, STATE 1451), (sym_tilde_operator, STATE 1385),
     (sym_await_expression, STATE 1302), (sym_new_expression, STATE 962),
     (sym_const_object_expression, STATE 962), (sym__primary, STATE 668),
     (sym_parenthesized_expression, STATE 962), (sym_constructor_invocation, STATE 643),
     (sym_constructor_tearoff, STATE 962), (sym_type_arguments, STATE 3200),
     (sym__statement, STATE 531), (sym_local_function_declaration, STATE 533),
     (sym_block, STATE 527), (sym_expression_statement, STATE 527),
     (sym_assert_statement, STATE 527), (sym_assertion, STATE 3380),
     (sym_switch_statement, STATE 527), (sym_switch_expression, STATE 962),
     (sym__parenthesized_pattern, STATE 3182), (sym_list_pattern, STATE 3182),
     (sym_map_pattern, STATE 3182), (sym_record_pattern, STATE 3182),
     (sym_object_pattern, STATE 3182), (sym_pattern_variable_declaration, STATE 3176),
     (sym__outer_pattern, STATE 3410), (sym_pattern_assignment, STATE 908),
     (sym_do_statement, STATE 527), (sym_break_statement, STATE 527),
     (sym_continue_statement, STATE 527), (sym_yield_statement, STATE 527),
     (sym_yield_each_statement, STATE 527), (sym_return_statement, STATE 527),
     (sym_try_statement, STATE 527), (sym__try_head, STATE 464), (sym_if_statement, STATE 527),
     (sym_while_statement, STATE 527), (sym_for_statement, STATE 527),
     (sym_annotation, STATE 1361), (sym__metadata, STATE 1059),
     (sym_type_parameters, STATE 2932), (sym_initialized_variable_definition, STATE 3176),
     (sym__declared_identifier, STATE 2667), (sym__final_const_var_or_type, STATE 3411),
     (sym__type, STATE 2530), (sym__type_not_function, STATE 1796),
     (sym__type_not_void_not_function, STATE 1896), (sym_function_type, STATE 1848),
     (aux_sym__function_type_tails, STATE 1605), (sym__function_type_tail, STATE 1704),
     (sym_record_type, STATE 1805), (sym__type_name, STATE 2004), (sym__var_or_type, STATE 2755),
     (sym_inferred_type, STATE 1771), (sym_function_signature, STATE 2368),
     (sym__formal_parameter_part, STATE 2339), (sym_formal_parameter_list, STATE 2020),
     (sym__strict_formal_parameter_list, STATE 2016),
     (sym_local_variable_declaration, STATE 542), (sym__covariant, STATE 1795),
     (sym__function_builtin_identifier, STATE 1463), (sym__get, STATE 2500),
     (sym__set, STATE 2500), (sym__new_builtin, STATE 2079), (sym_final_builtin, STATE 1764),
     (sym__late_builtin, STATE 1915), (sym_this, STATE 962), (sym_super, STATE 1337),
     (sym_comment, STATE 41), (sym_documentation_comment, STATE 41),
     (aux_sym_string_literal_repeat1, STATE 474), (aux_sym__metadata_repeat1, STATE 1308),
     (sym_identifier, ACTIONS 71), (anon_sym_POUND, ACTIONS 73),
     (sym_decimal_integer_literal, ACTIONS 75), (sym_hex_integer_literal, ACTIONS 77),
     (sym_decimal_floating_point_literal, ACTIONS 75), (anon_sym_true, ACTIONS 79),
     (anon_sym_false, ACTIONS 81), (anon_sym_DQUOTE, ACTIONS 83), (anon_sym_SQUOTE, ACTIONS 85),
     (anon_sym_DQUOTE_DQUOTE_DQUOTE, ACTIONS 87), (anon_sym_SQUOTE_SQUOTE_SQUOTE, ACTIONS 89),
     (anon_sym_r_DQUOTE, ACTIONS 91), (anon_sym_r_SQUOTE, ACTIONS 93),
     (anon_sym_r_DQUOTE_DQUOTE_DQUOTE, ACTIONS 95),
     (anon_sym_r_SQUOTE_SQUOTE_SQUOTE, ACTIONS 97), (anon_sym_LBRACE, ACTIONS 172),
     (anon_sym_LBRACK, ACTIONS 103), (anon_sym_null, ACTIONS 105),
     (anon_sym_LPAREN, ACTIONS 107), (anon_sym_throw, ACTIONS 109), (anon_sym_LT, ACTIONS 111),
     (sym_increment_operator, ACTIONS 113), (sym_minus_operator, ACTIONS 117),
     (anon_sym_BANG, ACTIONS 119), (anon_sym_TILDE, ACTIONS 121), (anon_sym_await, ACTIONS 176),
     (anon_sym_switch, ACTIONS 125), (anon_sym_do, ACTIONS 127), (anon_sym_while, ACTIONS 129),
     (anon_sym_continue, ACTIONS 131), (anon_sym_yield, ACTIONS 133),
     (anon_sym_return, ACTIONS 135), (anon_sym_try, ACTIONS 137), (anon_sym_if, ACTIONS 180),
     (anon_sym_for, ACTIONS 182), (anon_sym_AT, ACTIONS 143), (anon_sym_final, ACTIONS 145),
     (sym_void_type, ACTIONS 33), (anon_sym_var, ACTIONS 35), (sym_break_builtin, ACTIONS 147),
     (sym_assert_builtin, ACTIONS 149), (sym_rethrow_builtin, ACTIONS 151),
     (anon_sym_covariant, ACTIONS 153), (anon_sym_Function, ACTIONS 45),
     (anon_sym_get, ACTIONS 47), (anon_sym_set, ACTIONS 61), (anon_sym_new, ACTIONS 155),
     (sym_const_builtin, ACTIONS 157), (anon_sym_late, ACTIONS 67), (anon_sym_this, ACTIONS 159),
     (anon_sym_super, ACTIONS 161), (anon_sym_SLASH_SLASH, ACTIONS 3),
     (anon_sym_SLASH_STAR, ACTIONS 5), (anon_sym_SLASH_SLASH_SLASH, ACTIONS 7),
     (sym__block_comment, ACTIONS 9), (sym__documentation_block_comment, ACTIONS 11)]"

lemma row_ok_41: "table_row_ok 41 ts_parse_table_41"
  by (simp add: row_simps ts_parse_table_41_def)

definition ts_parse_table_42 :: table_row where
  "ts_parse_table_42 = [
     (sym__bool_literal, STATE 989), (sym__numeric_literal, STATE 989),
     (sym__literal, STATE 962), (sym_symbol_literal, STATE 989), (sym_true, STATE 900),
     (sym_false, STATE 900), (sym_string_literal, STATE 989),
     (sym__string_literal_double_quotes, STATE 627),
     (sym__string_literal_single_quotes, STATE 627),
     (sym__string_literal_double_quotes_multiple, STATE 627),
     (sym__string_literal_single_quotes_multiple, STATE 627),
     (sym__raw_string_literal_double_quotes, STATE 627),
     (sym__raw_string_literal_single_quotes, STATE 627),
     (sym__raw_string_literal_double_quotes_multiple, STATE 627),
     (sym__raw_string_literal_single_quotes_multiple, STATE 627), (sym_list_literal, STATE 989),
     (sym_set_or_map_literal, STATE 989), (sym_null_literal, STATE 989),
     (sym_record_literal, STATE 989), (sym__record_literal_no_const, STATE 924),
     (sym__expression, STATE 3203), (sym__real_expression, STATE 660),
     (sym_throw_expression, STATE 908), (sym_rethrow_expression, STATE 908),
     (sym_assignment_expression, STATE 908), (sym_assignable_expression, STATE 1940),
     (sym_lambda_expression, STATE 534), (sym_function_expression, STATE 962),
     (sym_if_null_expression, STATE 1477), (sym_conditional_expression, STATE 1477),
     (sym_logical_or_expression, STATE 1477), (sym_logical_and_expression, STATE 1477),
     (sym_equality_expression, STATE 1477), (sym_type_cast_expression, STATE 1477),
     (sym_type_test_expression, STATE 1477), (sym_relational_expression, STATE 1477),
     (sym_bitwise_or_expression, STATE 1477), (sym_bitwise_xor_expression, STATE 1477),
     (sym_bitwise_and_expression, STATE 1477), (sym_shift_expression, STATE 1477),
     (sym_additive_expression, STATE 1477), (sym_multiplicative_expression, STATE 1477),
     (sym__unary_expression, STATE 1121), (sym_unary_expression, STATE 1303),
     (sym__postfix_expression, STATE 1303), (sym_postfix_expression, STATE 1301),
     (sym_prefix_operator, STATE 431), (sym_negation_operator, STATE 1450),
     (sym__exclamation_operator, STATE 1451), (sym_tilde_operator, STATE 1385),
     (sym_await_expression, STATE 1302), (sym_new_expression, STATE 962),
     (sym_const_object_expression, STATE 962), (sym__primary, STATE 668),
     (sym_parenthesized_expression, STATE 962), (sym_constructor_invocation, STATE 643),
     (sym_constructor_tearoff, STATE 962), (sym_type_arguments, STATE 3200),
     (sym__statement, STATE 545), (sym_local_function_declaration, STATE 533),
     (sym_block, STATE 527), (sym_expression_statement, STATE 527),
     (sym_assert_statement, STATE 527), (sym_assertion, STATE 3380),
     (sym_switch_statement, STATE 527), (sym_switch_expression, STATE 962),
     (sym__parenthesized_pattern, STATE 3182), (sym_list_pattern, STATE 3182),
     (sym_map_pattern, STATE 3182), (sym_record_pattern, STATE 3182),
     (sym_object_pattern, STATE 3182), (sym_pattern_variable_declaration, STATE 3176),
     (sym__outer_pattern, STATE 3410), (sym_pattern_assignment, STATE 908),
     (sym_do_statement, STATE 527), (sym_break_statement, STATE 527),
     (sym_continue_statement, STATE 527), (sym_yield_statement, STATE 527),
     (sym_yield_each_statement, STATE 527), (sym_return_statement, STATE 527),
     (sym_try_statement, STATE 527), (sym__try_head, STATE 464), (sym_if_statement, STATE 527),
     (sym_while_statement, STATE 527), (sym_for_statement, STATE 527),
     (sym_annotation, STATE 1361), (sym__metadata, STATE 1059),
     (sym_type_parameters, STATE 2932), (sym_initialized_variable_definition, STATE 3176),
     (sym__declared_identifier, STATE 2667), (sym__final_const_var_or_type, STATE 3411),
     (sym__type, STATE 2530), (sym__type_not_function, STATE 1796),
     (sym__type_not_void_not_function, STATE 1896), (sym_function_type, STATE 1848),
     (aux_sym__function_type_tails, STATE 1605), (sym__function_type_tail, STATE 1704),
     (sym_record_type, STATE 1805), (sym__type_name, STATE 2004), (sym__var_or_type, STATE 2755),
     (sym_inferred_type, STATE 1771), (sym_function_signature, STATE 2368),
     (sym__formal_parameter_part, STATE 2339), (sym_formal_parameter_list, STATE 2020),
     (sym__strict_formal_parameter_list, STATE 2016),
     (sym_local_variable_declaration, STATE 542), (sym__covariant, STATE 1795),
     (sym__function_builtin_identifier, STATE 1463), (sym__get, STATE 2500),
     (sym__set, STATE 2500), (sym__new_builtin, STATE 2079), (sym_final_builtin, STATE 1764),
     (sym__late_builtin, STATE 1915), (sym_this, STATE 962), (sym_super, STATE 1337),
     (sym_comment, STATE 42), (sym_documentation_comment, STATE 42),
     (aux_sym_string_literal_repeat1, STATE 474), (aux_sym__metadata_repeat1, STATE 1308),
     (sym_identifier, ACTIONS 71), (anon_sym_POUND, ACTIONS 73),
     (sym_decimal_integer_literal, ACTIONS 75), (sym_hex_integer_literal, ACTIONS 77),
     (sym_decimal_floating_point_literal, ACTIONS 75), (anon_sym_true, ACTIONS 79),
     (anon_sym_false, ACTIONS 81), (anon_sym_DQUOTE, ACTIONS 83), (anon_sym_SQUOTE, ACTIONS 85),
     (anon_sym_DQUOTE_DQUOTE_DQUOTE, ACTIONS 87), (anon_sym_SQUOTE_SQUOTE_SQUOTE, ACTIONS 89),
     (anon_sym_r_DQUOTE, ACTIONS 91), (anon_sym_r_SQUOTE, ACTIONS 93),
     (anon_sym_r_DQUOTE_DQUOTE_DQUOTE, ACTIONS 95),
     (anon_sym_r_SQUOTE_SQUOTE_SQUOTE, ACTIONS 97), (anon_sym_LBRACE, ACTIONS 172),
     (anon_sym_LBRACK, ACTIONS 103), (anon_sym_null, ACTIONS 105),
     (anon_sym_LPAREN, ACTIONS 107), (anon_sym_throw, ACTIONS 109), (anon_sym_LT, ACTIONS 111),
     (sym_increment_operator, ACTIONS 113), (sym_minus_operator, ACTIONS 117),
     (anon_sym_BANG, ACTIONS 119), (anon_sym_TILDE, ACTIONS 121), (anon_sym_await, ACTIONS 176),
     (anon_sym_switch, ACTIONS 125), (anon_sym_do, ACTIONS 127), (anon_sym_while, ACTIONS 129),
     (anon_sym_continue, ACTIONS 131), (anon_sym_yield, ACTIONS 133),
     (anon_sym_return, ACTIONS 135), (anon_sym_try, ACTIONS 137), (anon_sym_if, ACTIONS 180),
     (anon_sym_for, ACTIONS 182), (anon_sym_AT, ACTIONS 143), (anon_sym_final, ACTIONS 145),
     (sym_void_type, ACTIONS 33), (anon_sym_var, ACTIONS 35), (sym_break_builtin, ACTIONS 147),
     (sym_assert_builtin, ACTIONS 149), (sym_rethrow_builtin, ACTIONS 151),
     (anon_sym_covariant, ACTIONS 153), (anon_sym_Function, ACTIONS 45),
     (anon_sym_get, ACTIONS 47), (anon_sym_set, ACTIONS 61), (anon_sym_new, ACTIONS 155),
     (sym_const_builtin, ACTIONS 157), (anon_sym_late, ACTIONS 67), (anon_sym_this, ACTIONS 159),
     (anon_sym_super, ACTIONS 161), (anon_sym_SLASH_SLASH, ACTIONS 3),
     (anon_sym_SLASH_STAR, ACTIONS 5), (anon_sym_SLASH_SLASH_SLASH, ACTIONS 7),
     (sym__block_comment, ACTIONS 9), (sym__documentation_block_comment, ACTIONS 11)]"

lemma row_ok_42: "table_row_ok 42 ts_parse_table_42"
  by (simp add: row_simps ts_parse_table_42_def)

definition ts_parse_table_43 :: table_row where
  "ts_parse_table_43 = [
     (sym__bool_literal, STATE 1245), (sym__numeric_literal, STATE 1245),
     (sym__literal, STATE 962), (sym_symbol_literal, STATE 1245), (sym_true, STATE 900),
     (sym_false, STATE 900), (sym_string_literal, STATE 1245),
     (sym__string_literal_double_quotes, STATE 627),
     (sym__string_literal_single_quotes, STATE 627),
     (sym__string_literal_double_quotes_multiple, STATE 627),
     (sym__string_literal_single_quotes_multiple, STATE 627),
     (sym__raw_string_literal_double_quotes, STATE 627),
     (sym__raw_string_literal_single_quotes, STATE 627),
     (sym__raw_string_literal_double_quotes_multiple, STATE 627),
     (sym__raw_string_literal_single_quotes_multiple, STATE 627), (sym_list_literal, STATE 989),
     (sym_set_or_map_literal, STATE 989), (sym_pair, STATE 2660), (sym__element, STATE 2786),
     (sym_null_literal, STATE 1245), (sym_record_literal, STATE 989),
     (sym__record_literal_no_const, STATE 924), (sym__expression, STATE 2562),
     (sym__real_expression, STATE 660), (sym_throw_expression, STATE 908),
     (sym_rethrow_expression, STATE 908), (sym_assignment_expression, STATE 908),
     (sym_assignable_expression, STATE 1940), (sym_function_expression, STATE 962),
     (sym_if_null_expression, STATE 1477), (sym_conditional_expression, STATE 1477),
     (sym_logical_or_expression, STATE 1477), (sym_logical_and_expression, STATE 1477),
     (sym_equality_expression, STATE 1477), (sym_type_cast_expression, STATE 1477),
     (sym_type_test_expression, STATE 1477), (sym_relational_expression, STATE 1477),
     (sym_relational_operator, STATE 345), (sym_bitwise_or_expression, STATE 1477),
     (sym_bitwise_xor_expression, STATE 1477), (sym_bitwise_and_expression, STATE 1477),
     (sym_shift_expression, STATE 1477), (sym_additive_expression, STATE 1477),
     (sym_multiplicative_expression, STATE 1477), (sym__unary_expression, STATE 1121),
     (sym_unary_expression, STATE 1303), (sym__postfix_expression, STATE 1303),
     (sym_postfix_expression, STATE 1301), (sym_spread_element, STATE 2660),
     (sym_prefix_operator, STATE 431), (sym_negation_operator, STATE 1450),
     (sym__exclamation_operator, STATE 1451), (sym_tilde_operator, STATE 1385),
     (sym_await_expression, STATE 1302), (sym_new_expression, STATE 962),
     (sym_const_object_expression, STATE 1249), (sym__primary, STATE 668),
     (sym_parenthesized_expression, STATE 962), (sym_constructor_invocation, STATE 643),
     (sym_constructor_tearoff, STATE 962), (sym_type_arguments, STATE 3161),
     (sym_switch_expression, STATE 962), (sym__pattern, STATE 3099),
     (sym__logical_or_pattern, STATE 2373), (sym__logical_and_pattern, STATE 2152),
     (sym__relational_pattern, STATE 2147), (sym__unary_pattern, STATE 2230),
     (sym__primary_pattern, STATE 2129), (sym_cast_pattern, STATE 2231),
     (sym_null_check_pattern, STATE 2231), (sym_null_assert_pattern, STATE 2231),
     (sym_constant_pattern, STATE 2102), (sym_variable_pattern, STATE 2102),
     (sym__parenthesized_pattern, STATE 2158), (sym_list_pattern, STATE 2158),
     (sym__list_pattern_element, STATE 2771), (sym_rest_pattern, STATE 3099),
     (sym_map_pattern, STATE 2158), (sym_record_pattern, STATE 2158),
     (sym_object_pattern, STATE 2158), (sym__outer_pattern, STATE 3410),
     (sym_pattern_assignment, STATE 908), (sym_if_element, STATE 2660),
     (sym_for_element, STATE 2660), (sym_annotation, STATE 1361), (sym__metadata, STATE 1077),
     (sym_type_parameters, STATE 2932), (sym__declared_identifier, STATE 2468),
     (sym__final_const_var_or_type, STATE 2557), (sym__type, STATE 2690),
     (sym__type_not_function, STATE 1796), (sym__type_not_void_not_function, STATE 1896),
     (sym_function_type, STATE 1848), (aux_sym__function_type_tails, STATE 1605),
     (sym__function_type_tail, STATE 1704), (sym_record_type, STATE 1805),
     (sym__type_name, STATE 2126), (sym__var_or_type, STATE 2755),
     (sym__final_var_or_type, STATE 3469), (sym_inferred_type, STATE 1995),
     (sym__formal_parameter_part, STATE 2339), (sym_formal_parameter_list, STATE 2020),
     (sym__strict_formal_parameter_list, STATE 2016), (sym_formal_parameter, STATE 2982),
     (sym__default_formal_parameter, STATE 2791), (sym__normal_formal_parameter, STATE 2466),
     (sym__function_formal_parameter, STATE 2465), (sym__simple_formal_parameter, STATE 2464),
     (sym_super_formal_parameter, STATE 2465), (sym_constructor_param, STATE 2465),
     (sym_qualified, STATE 2124), (sym__covariant, STATE 1794),
     (sym__function_builtin_identifier, STATE 1463), (sym__new_builtin, STATE 2079),
     (sym_final_builtin, STATE 1992), (sym__late_builtin, STATE 1915), (sym_this, STATE 1254),
     (sym_super, STATE 1324), (sym_comment, STATE 43), (sym_documentation_comment, STATE 43),
     (aux_sym_string_literal_repeat1, STATE 474), (aux_sym__metadata_repeat1, STATE 1308),
     (sym_identifier, ACTIONS 388), (anon_sym_POUND, ACTIONS 73),
     (sym_decimal_integer_literal, ACTIONS 75), (sym_hex_integer_literal, ACTIONS 77),
     (sym_decimal_floating_point_literal, ACTIONS 75), (anon_sym_true, ACTIONS 79),
     (anon_sym_false, ACTIONS 81), (anon_sym_DQUOTE, ACTIONS 83), (anon_sym_SQUOTE, ACTIONS 85),
     (anon_sym_DQUOTE_DQUOTE_DQUOTE, ACTIONS 87), (anon_sym_SQUOTE_SQUOTE_SQUOTE, ACTIONS 89),
     (anon_sym_r_DQUOTE, ACTIONS 91), (anon_sym_r_SQUOTE, ACTIONS 93),
     (anon_sym_r_DQUOTE_DQUOTE_DQUOTE, ACTIONS 95),
     (anon_sym_r_SQUOTE_SQUOTE_SQUOTE, ACTIONS 97), (anon_sym_LBRACE, ACTIONS 390),
     (anon_sym_LBRACK, ACTIONS 392), (anon_sym_RBRACK, ACTIONS 394),
     (anon_sym_null, ACTIONS 105), (anon_sym_LPAREN, ACTIONS 107), (anon_sym_throw, ACTIONS 109),
     (sym_equality_operator, ACTIONS 396), (anon_sym_LT, ACTIONS 398),
     (anon_sym_GT, ACTIONS 400), (anon_sym_LT_EQ, ACTIONS 402), (anon_sym_GT_EQ, ACTIONS 402),
     (sym_increment_operator, ACTIONS 113), (anon_sym_DOT_DOT_DOT, ACTIONS 404),
     (sym_minus_operator, ACTIONS 406), (anon_sym_BANG, ACTIONS 408),
     (anon_sym_TILDE, ACTIONS 121), (anon_sym_await, ACTIONS 410),
     (anon_sym_switch, ACTIONS 412), (anon_sym_if, ACTIONS 414), (anon_sym_for, ACTIONS 416),
     (anon_sym_AT, ACTIONS 143), (anon_sym_final, ACTIONS 145), (sym_void_type, ACTIONS 33),
     (anon_sym_var, ACTIONS 35), (sym_rethrow_builtin, ACTIONS 151),
     (anon_sym_covariant, ACTIONS 153), (anon_sym_Function, ACTIONS 45),
     (anon_sym_new, ACTIONS 155), (sym_const_builtin, ACTIONS 418), (anon_sym_late, ACTIONS 67),
     (anon_sym_this, ACTIONS 159), (anon_sym_super, ACTIONS 161),
     (anon_sym_SLASH_SLASH, ACTIONS 3), (anon_sym_SLASH_STAR, ACTIONS 5),
     (anon_sym_SLASH_SLASH_SLASH, ACTIONS 7), (sym__block_comment, ACTIONS 9),
     (sym__documentation_block_comment, ACTIONS 11)]"

lemma row_ok_43: "table_row_ok 43 ts_parse_table_43"
  by (simp add: row_simps ts_parse_table_43_def)

definition ts_parse_table_44 :: table_row where
  "ts_parse_table_44 = [
     (sym__bool_literal, STATE 1245), (sym__numeric_literal, STATE 1245),
     (sym__literal, STATE 962), (sym_symbol_literal, STATE 1245), (sym_true, STATE 900),
     (sym_false, STATE 900), (sym_string_literal, STATE 1245),
     (sym__string_literal_double_quotes, STATE 627),
     (sym__string_literal_single_quotes, STATE 627),
     (sym__string_literal_double_quotes_multiple, STATE 627),
     (sym__string_literal_single_quotes_multiple, STATE 627),
     (sym__raw_string_literal_double_quotes, STATE 627),
     (sym__raw_string_literal_single_quotes, STATE 627),
     (sym__raw_string_literal_double_quotes_multiple, STATE 627),
     (sym__raw_string_literal_single_quotes_multiple, STATE 627), (sym_list_literal, STATE 989),
     (sym_set_or_map_literal, STATE 989), (sym_pair, STATE 2660), (sym__element, STATE 2786),
     (sym_null_literal, STATE 1245), (sym_record_literal, STATE 989),
     (sym__record_literal_no_const, STATE 924), (sym__expression, STATE 2562),
     (sym__real_expression, STATE 660), (sym_throw_expression, STATE 908),
     (sym_rethrow_expression, STATE 908), (sym_assignment_expression, STATE 908),
     (sym_assignable_expression, STATE 1940), (sym_function_expression, STATE 962),
     (sym_if_null_expression, STATE 1477), (sym_conditional_expression, STATE 1477),
     (sym_logical_or_expression, STATE 1477), (sym_logical_and_expression, STATE 1477),
     (sym_equality_expression, STATE 1477), (sym_type_cast_expression, STATE 1477),
     (sym_type_test_expression, STATE 1477), (sym_relational_expression, STATE 1477),
     (sym_relational_operator, STATE 345), (sym_bitwise_or_expression, STATE 1477),
     (sym_bitwise_xor_expression, STATE 1477), (sym_bitwise_and_expression, STATE 1477),
     (sym_shift_expression, STATE 1477), (sym_additive_expression, STATE 1477),
     (sym_multiplicative_expression, STATE 1477), (sym__unary_expression, STATE 1121),
     (sym_unary_expression, STATE 1303), (sym__postfix_expression, STATE 1303),
     (sym_postfix_expression, STATE 1301), (sym_spread_element, STATE 2660),
     (sym_prefix_operator, STATE 431), (sym_negation_operator, STATE 1450),
     (sym__exclamation_operator, STATE 1451), (sym_tilde_operator, STATE 1385),
     (sym_await_expression, STATE 1302), (sym_new_expression, STATE 962),
     (sym_const_object_expression, STATE 1249), (sym__primary, STATE 668),
     (sym_parenthesized_expression, STATE 962), (sym_constructor_invocation, STATE 643),
     (sym_constructor_tearoff, STATE 962), (sym_type_arguments, STATE 3161),
     (sym_switch_expression, STATE 962), (sym__pattern, STATE 3099),
     (sym__logical_or_pattern, STATE 2373), (sym__logical_and_pattern, STATE 2152),
     (sym__relational_pattern, STATE 2147), (sym__unary_pattern, STATE 2230),
     (sym__primary_pattern, STATE 2129), (sym_cast_pattern, STATE 2231),
     (sym_null_check_pattern, STATE 2231), (sym_null_assert_pattern, STATE 2231),
     (sym_constant_pattern, STATE 2102), (sym_variable_pattern, STATE 2102),
     (sym__parenthesized_pattern, STATE 2158), (sym_list_pattern, STATE 2158),
     (sym__list_pattern_element, STATE 2771), (sym_rest_pattern, STATE 3099),
     (sym_map_pattern, STATE 2158), (sym_record_pattern, STATE 2158),
     (sym_object_pattern, STATE 2158), (sym__outer_pattern, STATE 3410),
     (sym_pattern_assignment, STATE 908), (sym_if_element, STATE 2660),
     (sym_for_element, STATE 2660), (sym_annotation, STATE 1361), (sym__metadata, STATE 1077),
     (sym_type_parameters, STATE 2932), (sym__declared_identifier, STATE 2468),
     (sym__final_const_var_or_type, STATE 2557), (sym__type, STATE 2690),
     (sym__type_not_function, STATE 1796), (sym__type_not_void_not_function, STATE 1896),
     (sym_function_type, STATE 1848), (aux_sym__function_type_tails, STATE 1605),
     (sym__function_type_tail, STATE 1704), (sym_record_type, STATE 1805),
     (sym__type_name, STATE 2126), (sym__var_or_type, STATE 2755),
     (sym__final_var_or_type, STATE 3469), (sym_inferred_type, STATE 1995),
     (sym__formal_parameter_part, STATE 2339), (sym_formal_parameter_list, STATE 2020),
     (sym__strict_formal_parameter_list, STATE 2016), (sym_formal_parameter, STATE 2982),
     (sym__default_formal_parameter, STATE 2791), (sym__normal_formal_parameter, STATE 2466),
     (sym__function_formal_parameter, STATE 2465), (sym__simple_formal_parameter, STATE 2464),
     (sym_super_formal_parameter, STATE 2465), (sym_constructor_param, STATE 2465),
     (sym_qualified, STATE 2124), (sym__covariant, STATE 1794),
     (sym__function_builtin_identifier, STATE 1463), (sym__new_builtin, STATE 2079),
     (sym_final_builtin, STATE 1992), (sym__late_builtin, STATE 1915), (sym_this, STATE 1254),
     (sym_super, STATE 1324), (sym_comment, STATE 44), (sym_documentation_comment, STATE 44),
     (aux_sym_string_literal_repeat1, STATE 474), (aux_sym__metadata_repeat1, STATE 1308),
     (sym_identifier, ACTIONS 388), (anon_sym_POUND, ACTIONS 73),
     (sym_decimal_integer_literal, ACTIONS 75), (sym_hex_integer_literal, ACTIONS 77),
     (sym_decimal_floating_point_literal, ACTIONS 75), (anon_sym_true, ACTIONS 79),
     (anon_sym_false, ACTIONS 81), (anon_sym_DQUOTE, ACTIONS 83), (anon_sym_SQUOTE, ACTIONS 85),
     (anon_sym_DQUOTE_DQUOTE_DQUOTE, ACTIONS 87), (anon_sym_SQUOTE_SQUOTE_SQUOTE, ACTIONS 89),
     (anon_sym_r_DQUOTE, ACTIONS 91), (anon_sym_r_SQUOTE, ACTIONS 93),
     (anon_sym_r_DQUOTE_DQUOTE_DQUOTE, ACTIONS 95),
     (anon_sym_r_SQUOTE_SQUOTE_SQUOTE, ACTIONS 97), (anon_sym_LBRACE, ACTIONS 390),
     (anon_sym_LBRACK, ACTIONS 392), (anon_sym_RBRACK, ACTIONS 420),
     (anon_sym_null, ACTIONS 105), (anon_sym_LPAREN, ACTIONS 107), (anon_sym_throw, ACTIONS 109),
     (sym_equality_operator, ACTIONS 396), (anon_sym_LT, ACTIONS 398),
     (anon_sym_GT, ACTIONS 400), (anon_sym_LT_EQ, ACTIONS 402), (anon_sym_GT_EQ, ACTIONS 402),
     (sym_increment_operator, ACTIONS 113), (anon_sym_DOT_DOT_DOT, ACTIONS 404),
     (sym_minus_operator, ACTIONS 406), (anon_sym_BANG, ACTIONS 408),
     (anon_sym_TILDE, ACTIONS 121), (anon_sym_await, ACTIONS 410),
     (anon_sym_switch, ACTIONS 412), (anon_sym_if, ACTIONS 414), (anon_sym_for, ACTIONS 416),
     (anon_sym_AT, ACTIONS 143), (anon_sym_final, ACTIONS 145), (sym_void_type, ACTIONS 33),
     (anon_sym_var, ACTIONS 35), (sym_rethrow_builtin, ACTIONS 151),
     (anon_sym_covariant, ACTIONS 153), (anon_sym_Function, ACTIONS 45),
     (anon_sym_new, ACTIONS 155), (sym_const_builtin, ACTIONS 418), (anon_sym_late, ACTIONS 67),
     (anon_sym_this, ACTIONS 159), (anon_sym_super, ACTIONS 161),
     (anon_sym_SLASH_SLASH, ACTIONS 3), (anon_sym_SLASH_STAR, ACTIONS 5),
     (anon_sym_SLASH_SLASH_SLASH, ACTIONS 7), (sym__block_comment, ACTIONS 9),
     (sym__documentation_block_comment, ACTIONS 11)]"

lemma row_ok_44: "table_row_ok 44 ts_parse_table_44"
  by (simp add: row_simps ts_parse_table_44_def)

definition ts_parse_table_45 :: table_row where
  "ts_parse_table_45 = [
     (sym__bool_literal, STATE 1245), (sym__numeric_literal, STATE 1245),
     (sym__literal, STATE 962), (sym_symbol_literal, STATE 1245), (sym_true, STATE 900),
     (sym_false, STATE 900), (sym_string_literal, STATE 1245),
     (sym__string_literal_double_quotes, STATE 627),
     (sym__string_literal_single_quotes, STATE 627),
     (sym__string_literal_double_quotes_multiple, STATE 627),
     (sym__string_literal_single_quotes_multiple, STATE 627),
     (sym__raw_string_literal_double_quotes, STATE 627),
     (sym__raw_string_literal_single_quotes, STATE 627),
     (sym__raw_string_literal_double_quotes_multiple, STATE 627),
     (sym__raw_string_literal_single_quotes_multiple, STATE 627), (sym_list_literal, STATE 989),
     (sym_set_or_map_literal, STATE 989), (sym_null_literal, STATE 1245),
     (sym_record_literal, STATE 989), (sym__record_literal_no_const, STATE 924),
     (sym_record_field, STATE 3108), (sym__expression, STATE 3111),
     (sym__real_expression, STATE 660), (sym_throw_expression, STATE 908),
     (sym_rethrow_expression, STATE 908), (sym_assignment_expression, STATE 908),
     (sym_assignable_expression, STATE 1940), (sym_function_expression, STATE 962),
     (sym_if_null_expression, STATE 1477), (sym_conditional_expression, STATE 1477),
     (sym_logical_or_expression, STATE 1477), (sym_logical_and_expression, STATE 1477),
     (sym_equality_expression, STATE 1477), (sym_type_cast_expression, STATE 1477),
     (sym_type_test_expression, STATE 1477), (sym_relational_expression, STATE 1477),
     (sym_relational_operator, STATE 345), (sym_bitwise_or_expression, STATE 1477),
     (sym_bitwise_xor_expression, STATE 1477), (sym_bitwise_and_expression, STATE 1477),
     (sym_shift_expression, STATE 1477), (sym_additive_expression, STATE 1477),
     (sym_multiplicative_expression, STATE 1477), (sym__unary_expression, STATE 1121),
     (sym_unary_expression, STATE 1303), (sym__postfix_expression, STATE 1303),
     (sym_postfix_expression, STATE 1301), (sym_prefix_operator, STATE 431),
     (sym_negation_operator, STATE 1450), (sym__exclamation_operator, STATE 1451),
     (sym_tilde_operator, STATE 1385), (sym_await_expression, STATE 1302),
     (sym_new_expression, STATE 962), (sym_const_object_expression, STATE 1249),
     (sym__primary, STATE 668), (sym_parenthesized_expression, STATE 962),
     (sym_constructor_invocation, STATE 643), (sym_constructor_tearoff, STATE 962),
     (sym_type_arguments, STATE 3161), (sym_switch_expression, STATE 962),
     (sym__pattern, STATE 3114), (sym__logical_or_pattern, STATE 2373),
     (sym__logical_and_pattern, STATE 2152), (sym__relational_pattern, STATE 2147),
     (sym__unary_pattern, STATE 2230), (sym__primary_pattern, STATE 2129),
     (sym_cast_pattern, STATE 2231), (sym_null_check_pattern, STATE 2231),
     (sym_null_assert_pattern, STATE 2231), (sym_constant_pattern, STATE 2102),
     (sym_variable_pattern, STATE 2102), (sym__parenthesized_pattern, STATE 2158),
     (sym_list_pattern, STATE 2158), (sym_map_pattern, STATE 2158),
     (sym_record_pattern, STATE 2158), (sym__pattern_field, STATE 2754),
     (sym_object_pattern, STATE 2158), (sym__outer_pattern, STATE 3410),
     (sym_pattern_assignment, STATE 908), (sym_annotation, STATE 1361),
     (sym__metadata, STATE 1064), (sym_type_parameters, STATE 2932),
     (sym__declared_identifier, STATE 2468), (sym__final_const_var_or_type, STATE 2557),
     (sym__type, STATE 2553), (sym__type_not_function, STATE 1796),
     (sym__type_not_void_not_function, STATE 1896), (sym_function_type, STATE 1848),
     (aux_sym__function_type_tails, STATE 1605), (sym__function_type_tail, STATE 1704),
     (sym_record_type, STATE 1805), (sym_record_type_field, STATE 2827),
     (sym__type_name, STATE 2126), (sym__var_or_type, STATE 2755),
     (sym__final_var_or_type, STATE 3469), (sym_inferred_type, STATE 1995),
     (sym__formal_parameter_part, STATE 2339), (sym_formal_parameter_list, STATE 2020),
     (sym__strict_formal_parameter_list, STATE 2016),
     (sym__normal_formal_parameters, STATE 3271), (sym_optional_formal_parameters, STATE 3277),
     (sym__optional_postional_formal_parameters, STATE 3424),
     (sym__named_formal_parameters, STATE 3424), (sym_formal_parameter, STATE 2750),
     (sym__normal_formal_parameter, STATE 2466), (sym__function_formal_parameter, STATE 2465),
     (sym__simple_formal_parameter, STATE 2464), (sym_super_formal_parameter, STATE 2465),
     (sym_constructor_param, STATE 2465), (sym_qualified, STATE 2124),
     (sym__covariant, STATE 1794), (sym__function_builtin_identifier, STATE 1463),
     (sym__new_builtin, STATE 2079), (sym_final_builtin, STATE 1992),
     (sym__late_builtin, STATE 1915), (sym_this, STATE 1254), (sym_super, STATE 1328),
     (sym_label, STATE 213), (sym_comment, STATE 45), (sym_documentation_comment, STATE 45),
     (aux_sym_string_literal_repeat1, STATE 474), (aux_sym__metadata_repeat1, STATE 1308),
     (sym_identifier, ACTIONS 422), (anon_sym_POUND, ACTIONS 73),
     (sym_decimal_integer_literal, ACTIONS 75), (sym_hex_integer_literal, ACTIONS 77),
     (sym_decimal_floating_point_literal, ACTIONS 75), (anon_sym_true, ACTIONS 79),
     (anon_sym_false, ACTIONS 81), (anon_sym_DQUOTE, ACTIONS 83), (anon_sym_SQUOTE, ACTIONS 85),
     (anon_sym_DQUOTE_DQUOTE_DQUOTE, ACTIONS 87), (anon_sym_SQUOTE_SQUOTE_SQUOTE, ACTIONS 89),
     (anon_sym_r_DQUOTE, ACTIONS 91), (anon_sym_r_SQUOTE, ACTIONS 93),
     (anon_sym_r_DQUOTE_DQUOTE_DQUOTE, ACTIONS 95),
     (anon_sym_r_SQUOTE_SQUOTE_SQUOTE, ACTIONS 97), (anon_sym_LBRACE, ACTIONS 424),
     (anon_sym_LBRACK, ACTIONS 426), (anon_sym_COLON, ACTIONS 428), (anon_sym_null, ACTIONS 105),
     (anon_sym_LPAREN, ACTIONS 107), (anon_sym_RPAREN, ACTIONS 430),
     (anon_sym_throw, ACTIONS 109), (sym_equality_operator, ACTIONS 396),
     (anon_sym_LT, ACTIONS 398), (anon_sym_GT, ACTIONS 400), (anon_sym_LT_EQ, ACTIONS 402),
     (anon_sym_GT_EQ, ACTIONS 402), (sym_increment_operator, ACTIONS 113),
     (sym_minus_operator, ACTIONS 406), (anon_sym_BANG, ACTIONS 408),
     (anon_sym_TILDE, ACTIONS 121), (anon_sym_await, ACTIONS 432),
     (anon_sym_switch, ACTIONS 412), (anon_sym_AT, ACTIONS 143), (anon_sym_final, ACTIONS 145),
     (sym_void_type, ACTIONS 33), (anon_sym_var, ACTIONS 35), (sym_rethrow_builtin, ACTIONS 151),
     (anon_sym_covariant, ACTIONS 153), (anon_sym_Function, ACTIONS 45),
     (anon_sym_new, ACTIONS 155), (sym_const_builtin, ACTIONS 418), (anon_sym_late, ACTIONS 67),
     (anon_sym_this, ACTIONS 159), (anon_sym_super, ACTIONS 161),
     (anon_sym_SLASH_SLASH, ACTIONS 3), (anon_sym_SLASH_STAR, ACTIONS 5),
     (anon_sym_SLASH_SLASH_SLASH, ACTIONS 7), (sym__block_comment, ACTIONS 9),
     (sym__documentation_block_comment, ACTIONS 11)]"

lemma row_ok_45: "table_row_ok 45 ts_parse_table_45"
  by (simp add: row_simps ts_parse_table_45_def)

definition ts_parse_table_46 :: table_row where
  "ts_parse_table_46 = [
     (sym__bool_literal, STATE 1245), (sym__numeric_literal, STATE 1245),
     (sym__literal, STATE 962), (sym_symbol_literal, STATE 1245), (sym_true, STATE 900),
     (sym_false, STATE 900), (sym_string_literal, STATE 1245),
     (sym__string_literal_double_quotes, STATE 627),
     (sym__string_literal_single_quotes, STATE 627),
     (sym__string_literal_double_quotes_multiple, STATE 627),
     (sym__string_literal_single_quotes_multiple, STATE 627),
     (sym__raw_string_literal_double_quotes, STATE 627),
     (sym__raw_string_literal_single_quotes, STATE 627),
     (sym__raw_string_literal_double_quotes_multiple, STATE 627),
     (sym__raw_string_literal_single_quotes_multiple, STATE 627), (sym_list_literal, STATE 989),
     (sym_set_or_map_literal, STATE 989), (sym_null_literal, STATE 1245),
     (sym_record_literal, STATE 989), (sym__record_literal_no_const, STATE 924),
     (sym_record_field, STATE 3108), (sym__expression, STATE 3111),
     (sym__real_expression, STATE 660), (sym_throw_expression, STATE 908),
     (sym_rethrow_expression, STATE 908), (sym_assignment_expression, STATE 908),
     (sym_assignable_expression, STATE 1940), (sym_function_expression, STATE 962),
     (sym_if_null_expression, STATE 1477), (sym_conditional_expression, STATE 1477),
     (sym_logical_or_expression, STATE 1477), (sym_logical_and_expression, STATE 1477),
     (sym_equality_expression, STATE 1477), (sym_type_cast_expression, STATE 1477),
     (sym_type_test_expression, STATE 1477), (sym_relational_expression, STATE 1477),
     (sym_relational_operator, STATE 345), (sym_bitwise_or_expression, STATE 1477),
     (sym_bitwise_xor_expression, STATE 1477), (sym_bitwise_and_expression, STATE 1477),
     (sym_shift_expression, STATE 1477), (sym_additive_expression, STATE 1477),
     (sym_multiplicative_expression, STATE 1477), (sym__unary_expression, STATE 1121),
     (sym_unary_expression, STATE 1303), (sym__postfix_expression, STATE 1303),
     (sym_postfix_expression, STATE 1301), (sym_prefix_operator, STATE 431),
     (sym_negation_operator, STATE 1450), (sym__exclamation_operator, STATE 1451),
     (sym_tilde_operator, STATE 1385), (sym_await_expression, STATE 1302),
     (sym_new_expression, STATE 962), (sym_const_object_expression, STATE 1249),
     (sym__primary, STATE 668), (sym_parenthesized_expression, STATE 962),
     (sym_constructor_invocation, STATE 643), (sym_constructor_tearoff, STATE 962),
     (sym_type_arguments, STATE 3161), (sym_switch_expression, STATE 962),
     (sym__pattern, STATE 3114), (sym__logical_or_pattern, STATE 2373),
     (sym__logical_and_pattern, STATE 2152), (sym__relational_pattern, STATE 2147),
     (sym__unary_pattern, STATE 2230), (sym__primary_pattern, STATE 2129),
     (sym_cast_pattern, STATE 2231), (sym_null_check_pattern, STATE 2231),
     (sym_null_assert_pattern, STATE 2231), (sym_constant_pattern, STATE 2102),
     (sym_variable_pattern, STATE 2102), (sym__parenthesized_pattern, STATE 2158),
     (sym_list_pattern, STATE 2158), (sym_map_pattern, STATE 2158),
     (sym_record_pattern, STATE 2158), (sym__pattern_field, STATE 2754),
     (sym_object_pattern, STATE 2158), (sym__outer_pattern, STATE 3410),
     (sym_pattern_assignment, STATE 908), (sym_annotation, STATE 1361),
     (sym__metadata, STATE 1077), (sym_type_parameters, STATE 2932),
     (sym__declared_identifier, STATE 2468), (sym__final_const_var_or_type, STATE 2557),
     (sym__type, STATE 2690), (sym__type_not_function, STATE 1796),
     (sym__type_not_void_not_function, STATE 1896), (sym_function_type, STATE 1848),
     (aux_sym__function_type_tails, STATE 1605), (sym__function_type_tail, STATE 1704),
     (sym_record_type, STATE 1805), (sym__type_name, STATE 2126), (sym__var_or_type, STATE 2755),
     (sym__final_var_or_type, STATE 3469), (sym_inferred_type, STATE 1995),
     (sym__formal_parameter_part, STATE 2339), (sym_formal_parameter_list, STATE 2020),
     (sym__strict_formal_parameter_list, STATE 2016),
     (sym__normal_formal_parameters, STATE 3271), (sym_optional_formal_parameters, STATE 3277),
     (sym__optional_postional_formal_parameters, STATE 3424),
     (sym__named_formal_parameters, STATE 3424), (sym_formal_parameter, STATE 2750),
     (sym__normal_formal_parameter, STATE 2466), (sym__function_formal_parameter, STATE 2465),
     (sym__simple_formal_parameter, STATE 2464), (sym_super_formal_parameter, STATE 2465),
     (sym_constructor_param, STATE 2465), (sym_qualified, STATE 2124),
     (sym__covariant, STATE 1794), (sym__function_builtin_identifier, STATE 1463),
     (sym__new_builtin, STATE 2079), (sym_final_builtin, STATE 1992),
     (sym__late_builtin, STATE 1915), (sym_this, STATE 1254), (sym_super, STATE 1328),
     (sym_label, STATE 213), (sym_comment, STATE 46), (sym_documentation_comment, STATE 46),
     (aux_sym_string_literal_repeat1, STATE 474), (aux_sym__metadata_repeat1, STATE 1308),
     (sym_identifier, ACTIONS 434), (anon_sym_POUND, ACTIONS 73),
     (sym_decimal_integer_literal, ACTIONS 75), (sym_hex_integer_literal, ACTIONS 77),
     (sym_decimal_floating_point_literal, ACTIONS 75), (anon_sym_true, ACTIONS 79),
     (anon_sym_false, ACTIONS 81), (anon_sym_DQUOTE, ACTIONS 83), (anon_sym_SQUOTE, ACTIONS 85),
     (anon_sym_DQUOTE_DQUOTE_DQUOTE, ACTIONS 87), (anon_sym_SQUOTE_SQUOTE_SQUOTE, ACTIONS 89),
     (anon_sym_r_DQUOTE, ACTIONS 91), (anon_sym_r_SQUOTE, ACTIONS 93),
     (anon_sym_r_DQUOTE_DQUOTE_DQUOTE, ACTIONS 95),
     (anon_sym_r_SQUOTE_SQUOTE_SQUOTE, ACTIONS 97), (anon_sym_LBRACE, ACTIONS 436),
     (anon_sym_LBRACK, ACTIONS 426), (anon_sym_COLON, ACTIONS 428), (anon_sym_null, ACTIONS 105),
     (anon_sym_LPAREN, ACTIONS 107), (anon_sym_RPAREN, ACTIONS 438),
     (anon_sym_throw, ACTIONS 109), (sym_equality_operator, ACTIONS 396),
     (anon_sym_LT, ACTIONS 398), (anon_sym_GT, ACTIONS 400), (anon_sym_LT_EQ, ACTIONS 402),
     (anon_sym_GT_EQ, ACTIONS 402), (sym_increment_operator, ACTIONS 113),
     (sym_minus_operator, ACTIONS 406), (anon_sym_BANG, ACTIONS 408),
     (anon_sym_TILDE, ACTIONS 121), (anon_sym_await, ACTIONS 432),
     (anon_sym_switch, ACTIONS 412), (anon_sym_AT, ACTIONS 143), (anon_sym_final, ACTIONS 145),
     (sym_void_type, ACTIONS 33), (anon_sym_var, ACTIONS 35), (sym_rethrow_builtin, ACTIONS 151),
     (anon_sym_covariant, ACTIONS 153), (anon_sym_Function, ACTIONS 45),
     (anon_sym_new, ACTIONS 155), (sym_const_builtin, ACTIONS 418), (anon_sym_late, ACTIONS 67),
     (anon_sym_this, ACTIONS 159), (anon_sym_super, ACTIONS 161),
     (anon_sym_SLASH_SLASH, ACTIONS 3), (anon_sym_SLASH_STAR, ACTIONS 5),
     (anon_sym_SLASH_SLASH_SLASH, ACTIONS 7), (sym__block_comment, ACTIONS 9),
     (sym__documentation_block_comment, ACTIONS 11)]"

lemma row_ok_46: "table_row_ok 46 ts_parse_table_46"
  by (simp add: row_simps ts_parse_table_46_def)

definition ts_parse_table_47 :: table_row where
  "ts_parse_table_47 = [
     (sym__bool_literal, STATE 1245), (sym__numeric_literal, STATE 1245),
     (sym__literal, STATE 962), (sym_symbol_literal, STATE 1245), (sym_true, STATE 900),
     (sym_false, STATE 900), (sym_string_literal, STATE 1245),
     (sym__string_literal_double_quotes, STATE 627),
     (sym__string_literal_single_quotes, STATE 627),
     (sym__string_literal_double_quotes_multiple, STATE 627),
     (sym__string_literal_single_quotes_multiple, STATE 627),
     (sym__raw_string_literal_double_quotes, STATE 627),
     (sym__raw_string_literal_single_quotes, STATE 627),
     (sym__raw_string_literal_double_quotes_multiple, STATE 627),
     (sym__raw_string_literal_single_quotes_multiple, STATE 627), (sym_list_literal, STATE 989),
     (sym_set_or_map_literal, STATE 989), (sym_null_literal, STATE 1245),
     (sym_record_literal, STATE 989), (sym__record_literal_no_const, STATE 924),
     (sym_record_field, STATE 3085), (sym__expression, STATE 3188),
     (sym__real_expression, STATE 660), (sym_throw_expression, STATE 908),
     (sym_rethrow_expression, STATE 908), (sym_assignment_expression, STATE 908),
     (sym_assignable_expression, STATE 1940), (sym_function_expression, STATE 962),
     (sym_if_null_expression, STATE 1477), (sym_conditional_expression, STATE 1477),
     (sym_logical_or_expression, STATE 1477), (sym_logical_and_expression, STATE 1477),
     (sym_equality_expression, STATE 1477), (sym_type_cast_expression, STATE 1477),
     (sym_type_test_expression, STATE 1477), (sym_relational_expression, STATE 1477),
     (sym_relational_operator, STATE 345), (sym_bitwise_or_expression, STATE 1477),
     (sym_bitwise_xor_expression, STATE 1477), (sym_bitwise_and_expression, STATE 1477),
     (sym_shift_expression, STATE 1477), (sym_additive_expression, STATE 1477),
     (sym_multiplicative_expression, STATE 1477), (sym__unary_expression, STATE 1121),
     (sym_unary_expression, STATE 1303), (sym__postfix_expression, STATE 1303),
     (sym_postfix_expression, STATE 1301), (sym_prefix_operator, STATE 431),
     (sym_negation_operator, STATE 1450), (sym__exclamation_operator, STATE 1451),
     (sym_tilde_operator, STATE 1385), (sym_await_expression, STATE 1302),
     (sym_new_expression, STATE 962), (sym_const_object_expression, STATE 1249),
     (sym__primary, STATE 668), (sym_parenthesized_expression, STATE 962),
     (sym_constructor_invocation, STATE 643), (sym_constructor_tearoff, STATE 962),
     (sym_type_arguments, STATE 3161), (sym_switch_expression, STATE 962),
     (sym__pattern, STATE 3114), (sym__logical_or_pattern, STATE 2373),
     (sym__logical_and_pattern, STATE 2152), (sym__relational_pattern, STATE 2147),
     (sym__unary_pattern, STATE 2230), (sym__primary_pattern, STATE 2129),
     (sym_cast_pattern, STATE 2231), (sym_null_check_pattern, STATE 2231),
     (sym_null_assert_pattern, STATE 2231), (sym_constant_pattern, STATE 2102),
     (sym_variable_pattern, STATE 2102), (sym__parenthesized_pattern, STATE 2158),
     (sym_list_pattern, STATE 2158), (sym_map_pattern, STATE 2158),
     (sym_record_pattern, STATE 2158), (sym__pattern_field, STATE 2754),
     (sym_object_pattern, STATE 2158), (sym__outer_pattern, STATE 3410),
     (sym_pattern_assignment, STATE 908), (sym_annotation, STATE 1361),
     (sym__metadata, STATE 1077), (sym_type_parameters, STATE 2932),
     (sym__declared_identifier, STATE 2468), (sym__final_const_var_or_type, STATE 2557),
     (sym__type, STATE 2690), (sym__type_not_function, STATE 1796),
     (sym__type_not_void_not_function, STATE 1896), (sym_function_type, STATE 1848),
     (aux_sym__function_type_tails, STATE 1605), (sym__function_type_tail, STATE 1704),
     (sym_record_type, STATE 1805), (sym__type_name, STATE 2126), (sym__var_or_type, STATE 2755),
     (sym__final_var_or_type, STATE 3469), (sym_inferred_type, STATE 1995),
     (sym__formal_parameter_part, STATE 2339), (sym_formal_parameter_list, STATE 2020),
     (sym__strict_formal_parameter_list, STATE 2016),
     (sym__normal_formal_parameters, STATE 3271), (sym_optional_formal_parameters, STATE 3277),
     (sym__optional_postional_formal_parameters, STATE 3424),
     (sym__named_formal_parameters, STATE 3424), (sym_formal_parameter, STATE 2750),
     (sym__normal_formal_parameter, STATE 2466), (sym__function_formal_parameter, STATE 2465),
     (sym__simple_formal_parameter, STATE 2464), (sym_super_formal_parameter, STATE 2465),
     (sym_constructor_param, STATE 2465), (sym_qualified, STATE 2124),
     (sym__covariant, STATE 1794), (sym__function_builtin_identifier, STATE 1463),
     (sym__new_builtin, STATE 2079), (sym_final_builtin, STATE 1992),
     (sym__late_builtin, STATE 1915), (sym_this, STATE 1254), (sym_super, STATE 1328),
     (sym_label, STATE 238), (sym_comment, STATE 47), (sym_documentation_comment, STATE 47),
     (aux_sym_string_literal_repeat1, STATE 474), (aux_sym__metadata_repeat1, STATE 1308),
     (sym_identifier, ACTIONS 434), (anon_sym_POUND, ACTIONS 73),
     (sym_decimal_integer_literal, ACTIONS 75), (sym_hex_integer_literal, ACTIONS 77),
     (sym_decimal_floating_point_literal, ACTIONS 75), (anon_sym_true, ACTIONS 79),
     (anon_sym_false, ACTIONS 81), (anon_sym_DQUOTE, ACTIONS 83), (anon_sym_SQUOTE, ACTIONS 85),
     (anon_sym_DQUOTE_DQUOTE_DQUOTE, ACTIONS 87), (anon_sym_SQUOTE_SQUOTE_SQUOTE, ACTIONS 89),
     (anon_sym_r_DQUOTE, ACTIONS 91), (anon_sym_r_SQUOTE, ACTIONS 93),
     (anon_sym_r_DQUOTE_DQUOTE_DQUOTE, ACTIONS 95),
     (anon_sym_r_SQUOTE_SQUOTE_SQUOTE, ACTIONS 97), (anon_sym_LBRACE, ACTIONS 436),
     (anon_sym_LBRACK, ACTIONS 426), (anon_sym_COLON, ACTIONS 428), (anon_sym_null, ACTIONS 105),
     (anon_sym_LPAREN, ACTIONS 107), (anon_sym_RPAREN, ACTIONS 438),
     (anon_sym_throw, ACTIONS 109), (sym_equality_operator, ACTIONS 396),
     (anon_sym_LT, ACTIONS 398), (anon_sym_GT, ACTIONS 400), (anon_sym_LT_EQ, ACTIONS 402),
     (anon_sym_GT_EQ, ACTIONS 402), (sym_increment_operator, ACTIONS 113),
     (sym_minus_operator, ACTIONS 406), (anon_sym_BANG, ACTIONS 408),
     (anon_sym_TILDE, ACTIONS 121), (anon_sym_await, ACTIONS 432),
     (anon_sym_switch, ACTIONS 412), (anon_sym_AT, ACTIONS 143), (anon_sym_final, ACTIONS 145),
     (sym_void_type, ACTIONS 33), (anon_sym_var, ACTIONS 35), (sym_rethrow_builtin, ACTIONS 151),
     (anon_sym_covariant, ACTIONS 153), (anon_sym_Function, ACTIONS 45),
     (anon_sym_new, ACTIONS 155), (sym_const_builtin, ACTIONS 418), (anon_sym_late, ACTIONS 67),
     (anon_sym_this, ACTIONS 159), (anon_sym_super, ACTIONS 161),
     (anon_sym_SLASH_SLASH, ACTIONS 3), (anon_sym_SLASH_STAR, ACTIONS 5),
     (anon_sym_SLASH_SLASH_SLASH, ACTIONS 7), (sym__block_comment, ACTIONS 9),
     (sym__documentation_block_comment, ACTIONS 11)]"

lemma row_ok_47: "table_row_ok 47 ts_parse_table_47"
  by (simp add: row_simps ts_parse_table_47_def)

definition ts_parse_table_48 :: table_row where
  "ts_parse_table_48 = [
     (sym__bool_literal, STATE 989), (sym__numeric_literal, STATE 989),
     (sym__literal, STATE 962), (sym_symbol_literal, STATE 989), (sym_true, STATE 900),
     (sym_false, STATE 900), (sym_string_literal, STATE 989),
     (sym__string_literal_double_quotes, STATE 627),
     (sym__string_literal_single_quotes, STATE 627),
     (sym__string_literal_double_quotes_multiple, STATE 627),
     (sym__string_literal_single_quotes_multiple, STATE 627),
     (sym__raw_string_literal_double_quotes, STATE 627),
     (sym__raw_string_literal_single_quotes, STATE 627),
     (sym__raw_string_literal_double_quotes_multiple, STATE 627),
     (sym__raw_string_literal_single_quotes_multiple, STATE 627), (sym_list_literal, STATE 989),
     (sym_set_or_map_literal, STATE 989), (sym_pair, STATE 2660), (sym__element, STATE 2817),
     (sym_null_literal, STATE 989), (sym_record_literal, STATE 989),
     (sym__record_literal_no_const, STATE 924), (sym__expression, STATE 2688),
     (sym__real_expression, STATE 660), (sym_throw_expression, STATE 908),
     (sym_rethrow_expression, STATE 908), (sym_assignment_expression, STATE 908),
     (sym_assignable_expression, STATE 1940), (sym_function_expression, STATE 962),
     (sym_if_null_expression, STATE 1477), (sym_conditional_expression, STATE 1477),
     (sym_logical_or_expression, STATE 1477), (sym_logical_and_expression, STATE 1477),
     (sym_equality_expression, STATE 1477), (sym_type_cast_expression, STATE 1477),
     (sym_type_test_expression, STATE 1477), (sym_relational_expression, STATE 1477),
     (sym_bitwise_or_expression, STATE 1477), (sym_bitwise_xor_expression, STATE 1477),
     (sym_bitwise_and_expression, STATE 1477), (sym_shift_expression, STATE 1477),
     (sym_additive_expression, STATE 1477), (sym_multiplicative_expression, STATE 1477),
     (sym__unary_expression, STATE 1121), (sym_unary_expression, STATE 1303),
     (sym__postfix_expression, STATE 1303), (sym_postfix_expression, STATE 1301),
     (sym_spread_element, STATE 2660), (sym_prefix_operator, STATE 431),
     (sym_negation_operator, STATE 1450), (sym__exclamation_operator, STATE 1451),
     (sym_tilde_operator, STATE 1385), (sym_await_expression, STATE 1302),
     (sym_new_expression, STATE 962), (sym_const_object_expression, STATE 962),
     (sym__primary, STATE 668), (sym_parenthesized_expression, STATE 962),
     (sym_constructor_invocation, STATE 643), (sym_constructor_tearoff, STATE 962),
     (sym_type_arguments, STATE 3200), (sym_switch_expression, STATE 962),
     (sym__parenthesized_pattern, STATE 3182), (sym_list_pattern, STATE 3182),
     (sym_map_pattern, STATE 3182), (sym__map_pattern_entry, STATE 2798),
     (sym_record_pattern, STATE 3182), (sym_object_pattern, STATE 3182),
     (sym__outer_pattern, STATE 3410), (sym_pattern_assignment, STATE 908),
     (sym_if_element, STATE 2660), (sym_for_element, STATE 2660), (sym_annotation, STATE 1361),
     (sym__metadata, STATE 788), (sym_type_parameters, STATE 2932),
     (sym__declared_identifier, STATE 2468), (sym__final_const_var_or_type, STATE 2557),
     (sym__type, STATE 2868), (sym__type_not_function, STATE 1796),
     (sym__type_not_void_not_function, STATE 1896), (sym_function_type, STATE 1848),
     (aux_sym__function_type_tails, STATE 1605), (sym__function_type_tail, STATE 1704),
     (sym_record_type, STATE 1805), (sym_record_type_named_field, STATE 2804),
     (sym__type_name, STATE 2004), (sym_typed_identifier, STATE 3101),
     (sym__var_or_type, STATE 2755), (sym_inferred_type, STATE 1976),
     (sym__formal_parameter_part, STATE 2339), (sym_formal_parameter_list, STATE 2020),
     (sym__strict_formal_parameter_list, STATE 2016), (sym_formal_parameter, STATE 2654),
     (sym__default_named_parameter, STATE 2997), (sym__normal_formal_parameter, STATE 2466),
     (sym__function_formal_parameter, STATE 2465), (sym__simple_formal_parameter, STATE 2464),
     (sym_super_formal_parameter, STATE 2465), (sym_constructor_param, STATE 2465),
     (sym__covariant, STATE 1794), (sym__function_builtin_identifier, STATE 1463),
     (sym__required, STATE 910), (sym__new_builtin, STATE 2079), (sym_final_builtin, STATE 1984),
     (sym__late_builtin, STATE 1915), (sym_this, STATE 1254), (sym_super, STATE 1348),
     (sym_comment, STATE 48), (sym_documentation_comment, STATE 48),
     (aux_sym_string_literal_repeat1, STATE 474), (aux_sym__metadata_repeat1, STATE 1308),
     (sym_identifier, ACTIONS 440), (anon_sym_POUND, ACTIONS 73),
     (sym_decimal_integer_literal, ACTIONS 75), (sym_hex_integer_literal, ACTIONS 77),
     (sym_decimal_floating_point_literal, ACTIONS 75), (anon_sym_true, ACTIONS 79),
     (anon_sym_false, ACTIONS 81), (anon_sym_DQUOTE, ACTIONS 83), (anon_sym_SQUOTE, ACTIONS 85),
     (anon_sym_DQUOTE_DQUOTE_DQUOTE, ACTIONS 87), (anon_sym_SQUOTE_SQUOTE_SQUOTE, ACTIONS 89),
     (anon_sym_r_DQUOTE, ACTIONS 91), (anon_sym_r_SQUOTE, ACTIONS 93),
     (anon_sym_r_DQUOTE_DQUOTE_DQUOTE, ACTIONS 95),
     (anon_sym_r_SQUOTE_SQUOTE_SQUOTE, ACTIONS 97), (anon_sym_LBRACE, ACTIONS 442),
     (anon_sym_RBRACE, ACTIONS 444), (anon_sym_LBRACK, ACTIONS 103),
     (anon_sym_null, ACTIONS 105), (anon_sym_LPAREN, ACTIONS 107), (anon_sym_throw, ACTIONS 109),
     (anon_sym_LT, ACTIONS 111), (sym_increment_operator, ACTIONS 113),
     (anon_sym_DOT_DOT_DOT, ACTIONS 115), (sym_minus_operator, ACTIONS 117),
     (anon_sym_BANG, ACTIONS 119), (anon_sym_TILDE, ACTIONS 121), (anon_sym_await, ACTIONS 410),
     (anon_sym_switch, ACTIONS 412), (anon_sym_if, ACTIONS 414), (anon_sym_for, ACTIONS 416),
     (anon_sym_AT, ACTIONS 143), (anon_sym_final, ACTIONS 145), (sym_void_type, ACTIONS 33),
     (anon_sym_var, ACTIONS 35), (sym_rethrow_builtin, ACTIONS 151),
     (anon_sym_covariant, ACTIONS 153), (anon_sym_Function, ACTIONS 45),
     (anon_sym_required, ACTIONS 446), (anon_sym_new, ACTIONS 155),
     (sym_const_builtin, ACTIONS 157), (anon_sym_late, ACTIONS 67), (anon_sym_this, ACTIONS 159),
     (anon_sym_super, ACTIONS 161), (anon_sym_SLASH_SLASH, ACTIONS 3),
     (anon_sym_SLASH_STAR, ACTIONS 5), (anon_sym_SLASH_SLASH_SLASH, ACTIONS 7),
     (sym__block_comment, ACTIONS 9), (sym__documentation_block_comment, ACTIONS 11)]"

lemma row_ok_48: "table_row_ok 48 ts_parse_table_48"
  by (simp add: row_simps ts_parse_table_48_def)

definition ts_parse_table_49 :: table_row where
  "ts_parse_table_49 = [
     (sym__bool_literal, STATE 989), (sym__numeric_literal, STATE 989),
     (sym__literal, STATE 962), (sym_symbol_literal, STATE 989), (sym_true, STATE 900),
     (sym_false, STATE 900), (sym_string_literal, STATE 989),
     (sym__string_literal_double_quotes, STATE 627),
     (sym__string_literal_single_quotes, STATE 627),
     (sym__string_literal_double_quotes_multiple, STATE 627),
     (sym__string_literal_single_quotes_multiple, STATE 627),
     (sym__raw_string_literal_double_quotes, STATE 627),
     (sym__raw_string_literal_single_quotes, STATE 627),
     (sym__raw_string_literal_double_quotes_multiple, STATE 627),
     (sym__raw_string_literal_single_quotes_multiple, STATE 627), (sym_list_literal, STATE 989),
     (sym_set_or_map_literal, STATE 989), (sym_pair, STATE 2660), (sym__element, STATE 2817),
     (sym_null_literal, STATE 989), (sym_record_literal, STATE 989),
     (sym__record_literal_no_const, STATE 924), (sym__expression, STATE 2688),
     (sym__real_expression, STATE 660), (sym_throw_expression, STATE 908),
     (sym_rethrow_expression, STATE 908), (sym_assignment_expression, STATE 908),
     (sym_assignable_expression, STATE 1940), (sym_function_expression, STATE 962),
     (sym_if_null_expression, STATE 1477), (sym_conditional_expression, STATE 1477),
     (sym_logical_or_expression, STATE 1477), (sym_logical_and_expression, STATE 1477),
     (sym_equality_expression, STATE 1477), (sym_type_cast_expression, STATE 1477),
     (sym_type_test_expression, STATE 1477), (sym_relational_expression, STATE 1477),
     (sym_bitwise_or_expression, STATE 1477), (sym_bitwise_xor_expression, STATE 1477),
     (sym_bitwise_and_expression, STATE 1477), (sym_shift_expression, STATE 1477),
     (sym_additive_expression, STATE 1477), (sym_multiplicative_expression, STATE 1477),
     (sym__unary_expression, STATE 1121), (sym_unary_expression, STATE 1303),
     (sym__postfix_expression, STATE 1303), (sym_postfix_expression, STATE 1301),
     (sym_spread_element, STATE 2660), (sym_prefix_operator, STATE 431),
     (sym_negation_operator, STATE 1450), (sym__exclamation_operator, STATE 1451),
     (sym_tilde_operator, STATE 1385), (sym_await_expression, STATE 1302),
     (sym_new_expression, STATE 962), (sym_const_object_expression, STATE 962),
     (sym__primary, STATE 668), (sym_parenthesized_expression, STATE 962),
     (sym_constructor_invocation, STATE 643), (sym_constructor_tearoff, STATE 962),
     (sym_type_arguments, STATE 3200), (sym_switch_expression, STATE 962),
     (sym__parenthesized_pattern, STATE 3182), (sym_list_pattern, STATE 3182),
     (sym_map_pattern, STATE 3182), (sym__map_pattern_entry, STATE 2798),
     (sym_record_pattern, STATE 3182), (sym_object_pattern, STATE 3182),
     (sym__outer_pattern, STATE 3410), (sym_pattern_assignment, STATE 908),
     (sym_if_element, STATE 2660), (sym_for_element, STATE 2660), (sym_annotation, STATE 1361),
     (sym__metadata, STATE 825), (sym_type_parameters, STATE 2932),
     (sym__declared_identifier, STATE 2468), (sym__final_const_var_or_type, STATE 2557),
     (sym__type, STATE 2756), (sym__type_not_function, STATE 1796),
     (sym__type_not_void_not_function, STATE 1896), (sym_function_type, STATE 1848),
     (aux_sym__function_type_tails, STATE 1605), (sym__function_type_tail, STATE 1704),
     (sym_record_type, STATE 1805), (sym__type_name, STATE 2004), (sym__var_or_type, STATE 2755),
     (sym_inferred_type, STATE 1976), (sym__formal_parameter_part, STATE 2339),
     (sym_formal_parameter_list, STATE 2020), (sym__strict_formal_parameter_list, STATE 2016),
     (sym_formal_parameter, STATE 2654), (sym__default_named_parameter, STATE 2997),
     (sym__normal_formal_parameter, STATE 2466), (sym__function_formal_parameter, STATE 2465),
     (sym__simple_formal_parameter, STATE 2464), (sym_super_formal_parameter, STATE 2465),
     (sym_constructor_param, STATE 2465), (sym__covariant, STATE 1794),
     (sym__function_builtin_identifier, STATE 1463), (sym__required, STATE 910),
     (sym__new_builtin, STATE 2079), (sym_final_builtin, STATE 1984),
     (sym__late_builtin, STATE 1915), (sym_this, STATE 1254), (sym_super, STATE 1348),
     (sym_comment, STATE 49), (sym_documentation_comment, STATE 49),
     (aux_sym_string_literal_repeat1, STATE 474), (aux_sym__metadata_repeat1, STATE 1308),
     (sym_identifier, ACTIONS 440), (anon_sym_POUND, ACTIONS 73),
     (sym_decimal_integer_literal, ACTIONS 75), (sym_hex_integer_literal, ACTIONS 77),
     (sym_decimal_floating_point_literal, ACTIONS 75), (anon_sym_true, ACTIONS 79),
     (anon_sym_false, ACTIONS 81), (anon_sym_DQUOTE, ACTIONS 83), (anon_sym_SQUOTE, ACTIONS 85),
     (anon_sym_DQUOTE_DQUOTE_DQUOTE, ACTIONS 87), (anon_sym_SQUOTE_SQUOTE_SQUOTE, ACTIONS 89),
     (anon_sym_r_DQUOTE, ACTIONS 91), (anon_sym_r_SQUOTE, ACTIONS 93),
     (anon_sym_r_DQUOTE_DQUOTE_DQUOTE, ACTIONS 95),
     (anon_sym_r_SQUOTE_SQUOTE_SQUOTE, ACTIONS 97), (anon_sym_LBRACE, ACTIONS 442),
     (anon_sym_RBRACE, ACTIONS 448), (anon_sym_LBRACK, ACTIONS 103),
     (anon_sym_null, ACTIONS 105), (anon_sym_LPAREN, ACTIONS 107), (anon_sym_throw, ACTIONS 109),
     (anon_sym_LT, ACTIONS 111), (sym_increment_operator, ACTIONS 113),
     (anon_sym_DOT_DOT_DOT, ACTIONS 115), (sym_minus_operator, ACTIONS 117),
     (anon_sym_BANG, ACTIONS 119), (anon_sym_TILDE, ACTIONS 121), (anon_sym_await, ACTIONS 410),
     (anon_sym_switch, ACTIONS 412), (anon_sym_if, ACTIONS 414), (anon_sym_for, ACTIONS 416),
     (anon_sym_AT, ACTIONS 143), (anon_sym_final, ACTIONS 145), (sym_void_type, ACTIONS 33),
     (anon_sym_var, ACTIONS 35), (sym_rethrow_builtin, ACTIONS 151),
     (anon_sym_covariant, ACTIONS 153), (anon_sym_Function, ACTIONS 45),
     (anon_sym_required, ACTIONS 446), (anon_sym_new, ACTIONS 155),
     (sym_const_builtin, ACTIONS 157), (anon_sym_late, ACTIONS 67), (anon_sym_this, ACTIONS 159),
     (anon_sym_super, ACTIONS 161), (anon_sym_SLASH_SLASH, ACTIONS 3),
     (anon_sym_SLASH_STAR, ACTIONS 5), (anon_sym_SLASH_SLASH_SLASH, ACTIONS 7),
     (sym__block_comment, ACTIONS 9), (sym__documentation_block_comment, ACTIONS 11)]"

lemma row_ok_49: "table_row_ok 49 ts_parse_table_49"
  by (simp add: row_simps ts_parse_table_49_def)

definition ts_parse_table_50 :: table_row where
  "ts_parse_table_50 = [
     (sym__bool_literal, STATE 989), (sym__numeric_literal, STATE 989),
     (sym__literal, STATE 962), (sym_symbol_literal, STATE 989), (sym_true, STATE 900),
     (sym_false, STATE 900), (sym_string_literal, STATE 989),
     (sym__string_literal_double_quotes, STATE 627),
     (sym__string_literal_single_quotes, STATE 627),
     (sym__string_literal_double_quotes_multiple, STATE 627),
     (sym__string_literal_single_quotes_multiple, STATE 627),
     (sym__raw_string_literal_double_quotes, STATE 627),
     (sym__raw_string_literal_single_quotes, STATE 627),
     (sym__raw_string_literal_double_quotes_multiple, STATE 627),
     (sym__raw_string_literal_single_quotes_multiple, STATE 627), (sym_list_literal, STATE 989),
     (sym_set_or_map_literal, STATE 989), (sym_pair, STATE 2660), (sym__element, STATE 2817),
     (sym_null_literal, STATE 989), (sym_record_literal, STATE 989),
     (sym__record_literal_no_const, STATE 924), (sym__expression, STATE 2688),
     (sym__real_expression, STATE 660), (sym_throw_expression, STATE 908),
     (sym_rethrow_expression, STATE 908), (sym_assignment_expression, STATE 908),
     (sym_assignable_expression, STATE 1940), (sym_function_expression, STATE 962),
     (sym_if_null_expression, STATE 1477), (sym_conditional_expression, STATE 1477),
     (sym_logical_or_expression, STATE 1477), (sym_logical_and_expression, STATE 1477),
     (sym_equality_expression, STATE 1477), (sym_type_cast_expression, STATE 1477),
     (sym_type_test_expression, STATE 1477), (sym_relational_expression, STATE 1477),
     (sym_bitwise_or_expression, STATE 1477), (sym_bitwise_xor_expression, STATE 1477),
     (sym_bitwise_and_expression, STATE 1477), (sym_shift_expression, STATE 1477),
     (sym_additive_expression, STATE 1477), (sym_multiplicative_expression, STATE 1477),
     (sym__unary_expression, STATE 1121), (sym_unary_expression, STATE 1303),
     (sym__postfix_expression, STATE 1303), (sym_postfix_expression, STATE 1301),
     (sym_spread_element, STATE 2660), (sym_prefix_operator, STATE 431),
     (sym_negation_operator, STATE 1450), (sym__exclamation_operator, STATE 1451),
     (sym_tilde_operator, STATE 1385), (sym_await_expression, STATE 1302),
     (sym_new_expression, STATE 962), (sym_const_object_expression, STATE 962),
     (sym__primary, STATE 668), (sym_parenthesized_expression, STATE 962),
     (sym_constructor_invocation, STATE 643), (sym_constructor_tearoff, STATE 962),
     (sym_type_arguments, STATE 3200), (sym_switch_expression, STATE 962),
     (sym__parenthesized_pattern, STATE 3182), (sym_list_pattern, STATE 3182),
     (sym_map_pattern, STATE 3182), (sym__map_pattern_entry, STATE 2798),
     (sym_record_pattern, STATE 3182), (sym_object_pattern, STATE 3182),
     (sym__outer_pattern, STATE 3410), (sym_pattern_assignment, STATE 908),
     (sym_if_element, STATE 2660), (sym_for_element, STATE 2660), (sym_annotation, STATE 1361),
     (sym__metadata, STATE 825), (sym_type_parameters, STATE 2932),
     (sym__declared_identifier, STATE 2468), (sym__final_const_var_or_type, STATE 2557),
     (sym__type, STATE 2756), (sym__type_not_function, STATE 1796),
     (sym__type_not_void_not_function, STATE 1896), (sym_function_type, STATE 1848),
     (aux_sym__function_type_tails, STATE 1605), (sym__function_type_tail, STATE 1704),
     (sym_record_type, STATE 1805), (sym__type_name, STATE 2004), (sym__var_or_type, STATE 2755),
     (sym_inferred_type, STATE 1976), (sym__formal_parameter_part, STATE 2339),
     (sym_formal_parameter_list, STATE 2020), (sym__strict_formal_parameter_list, STATE 2016),
     (sym_formal_parameter, STATE 2654), (sym__default_named_parameter, STATE 2997),
     (sym__normal_formal_parameter, STATE 2466), (sym__function_formal_parameter, STATE 2465),
     (sym__simple_formal_parameter, STATE 2464), (sym_super_formal_parameter, STATE 2465),
     (sym_constructor_param, STATE 2465), (sym__covariant, STATE 1794),
     (sym__function_builtin_identifier, STATE 1463), (sym__required, STATE 910),
     (sym__new_builtin, STATE 2079), (sym_final_builtin, STATE 1984),
     (sym__late_builtin, STATE 1915), (sym_this, STATE 1254), (sym_super, STATE 1348),
     (sym_comment, STATE 50), (sym_documentation_comment, STATE 50),
     (aux_sym_string_literal_repeat1, STATE 474), (aux_sym__metadata_repeat1, STATE 1308),
     (sym_identifier, ACTIONS 440), (anon_sym_POUND, ACTIONS 73),
     (sym_decimal_integer_literal, ACTIONS 75), (sym_hex_integer_literal, ACTIONS 77),
     (sym_decimal_floating_point_literal, ACTIONS 75), (anon_sym_true, ACTIONS 79),
     (anon_sym_false, ACTIONS 81), (anon_sym_DQUOTE, ACTIONS 83), (anon_sym_SQUOTE, ACTIONS 85),
     (anon_sym_DQUOTE_DQUOTE_DQUOTE, ACTIONS 87), (anon_sym_SQUOTE_SQUOTE_SQUOTE, ACTIONS 89),
     (anon_sym_r_DQUOTE, ACTIONS 91), (anon_sym_r_SQUOTE, ACTIONS 93),
     (anon_sym_r_DQUOTE_DQUOTE_DQUOTE, ACTIONS 95),
     (anon_sym_r_SQUOTE_SQUOTE_SQUOTE, ACTIONS 97), (anon_sym_LBRACE, ACTIONS 442),
     (anon_sym_RBRACE, ACTIONS 444), (anon_sym_LBRACK, ACTIONS 103),
     (anon_sym_null, ACTIONS 105), (anon_sym_LPAREN, ACTIONS 107), (anon_sym_throw, ACTIONS 109),
     (anon_sym_LT, ACTIONS 111), (sym_increment_operator, ACTIONS 113),
     (anon_sym_DOT_DOT_DOT, ACTIONS 115), (sym_minus_operator, ACTIONS 117),
     (anon_sym_BANG, ACTIONS 119), (anon_sym_TILDE, ACTIONS 121), (anon_sym_await, ACTIONS 410),
     (anon_sym_switch, ACTIONS 412), (anon_sym_if, ACTIONS 414), (anon_sym_for, ACTIONS 416),
     (anon_sym_AT, ACTIONS 143), (anon_sym_final, ACTIONS 145), (sym_void_type, ACTIONS 33),
     (anon_sym_var, ACTIONS 35), (sym_rethrow_builtin, ACTIONS 151),
     (anon_sym_covariant, ACTIONS 153), (anon_sym_Function, ACTIONS 45),
     (anon_sym_required, ACTIONS 446), (anon_sym_new, ACTIONS 155),
     (sym_const_builtin, ACTIONS 157), (anon_sym_late, ACTIONS 67), (anon_sym_this, ACTIONS 159),
     (anon_sym_super, ACTIONS 161), (anon_sym_SLASH_SLASH, ACTIONS 3),
     (anon_sym_SLASH_STAR, ACTIONS 5), (anon_sym_SLASH_SLASH_SLASH, ACTIONS 7),
     (sym__block_comment, ACTIONS 9), (sym__documentation_block_comment, ACTIONS 11)]"

lemma row_ok_50: "table_row_ok 50 ts_parse_table_50"
  by (simp add: row_simps ts_parse_table_50_def)

definition ts_parse_table_51 :: table_row where
  "ts_parse_table_51 = [
     (sym__bool_literal, STATE 1245), (sym__numeric_literal, STATE 1245),
     (sym__literal, STATE 962), (sym_symbol_literal, STATE 1245), (sym_true, STATE 900),
     (sym_false, STATE 900), (sym_string_literal, STATE 1245),
     (sym__string_literal_double_quotes, STATE 627),
     (sym__string_literal_single_quotes, STATE 627),
     (sym__string_literal_double_quotes_multiple, STATE 627),
     (sym__string_literal_single_quotes_multiple, STATE 627),
     (sym__raw_string_literal_double_quotes, STATE 627),
     (sym__raw_string_literal_single_quotes, STATE 627),
     (sym__raw_string_literal_double_quotes_multiple, STATE 627),
     (sym__raw_string_literal_single_quotes_multiple, STATE 627), (sym_list_literal, STATE 989),
     (sym_set_or_map_literal, STATE 989), (sym_pair, STATE 2660), (sym__element, STATE 2828),
     (sym_null_literal, STATE 1245), (sym_record_literal, STATE 989),
     (sym__record_literal_no_const, STATE 924), (sym__expression, STATE 2562),
     (sym__real_expression, STATE 660), (sym_throw_expression, STATE 908),
     (sym_rethrow_expression, STATE 908), (sym_assignment_expression, STATE 908),
     (sym_assignable_expression, STATE 1940), (sym_function_expression, STATE 962),
     (sym_if_null_expression, STATE 1477), (sym_conditional_expression, STATE 1477),
     (sym_logical_or_expression, STATE 1477), (sym_logical_and_expression, STATE 1477),
     (sym_equality_expression, STATE 1477), (sym_type_cast_expression, STATE 1477),
     (sym_type_test_expression, STATE 1477), (sym_relational_expression, STATE 1477),
     (sym_relational_operator, STATE 345), (sym_bitwise_or_expression, STATE 1477),
     (sym_bitwise_xor_expression, STATE 1477), (sym_bitwise_and_expression, STATE 1477),
     (sym_shift_expression, STATE 1477), (sym_additive_expression, STATE 1477),
     (sym_multiplicative_expression, STATE 1477), (sym__unary_expression, STATE 1121),
     (sym_unary_expression, STATE 1303), (sym__postfix_expression, STATE 1303),
     (sym_postfix_expression, STATE 1301), (sym_spread_element, STATE 2660),
     (sym_prefix_operator, STATE 431), (sym_negation_operator, STATE 1450),
     (sym__exclamation_operator, STATE 1451), (sym_tilde_operator, STATE 1385),
     (sym_await_expression, STATE 1302), (sym_new_expression, STATE 962),
     (sym_const_object_expression, STATE 1249), (sym__primary, STATE 668),
     (sym_parenthesized_expression, STATE 962), (sym_constructor_invocation, STATE 643),
     (sym_constructor_tearoff, STATE 962), (sym_type_arguments, STATE 3161),
     (sym_switch_expression, STATE 962), (sym__pattern, STATE 3099),
     (sym__logical_or_pattern, STATE 2373), (sym__logical_and_pattern, STATE 2152),
     (sym__relational_pattern, STATE 2147), (sym__unary_pattern, STATE 2230),
     (sym__primary_pattern, STATE 2129), (sym_cast_pattern, STATE 2231),
     (sym_null_check_pattern, STATE 2231), (sym_null_assert_pattern, STATE 2231),
     (sym_constant_pattern, STATE 2102), (sym_variable_pattern, STATE 2102),
     (sym__parenthesized_pattern, STATE 2158), (sym_list_pattern, STATE 2158),
     (sym__list_pattern_element, STATE 2771), (sym_rest_pattern, STATE 3099),
     (sym_map_pattern, STATE 2158), (sym_record_pattern, STATE 2158),
     (sym_object_pattern, STATE 2158), (sym__outer_pattern, STATE 3410),
     (sym_pattern_assignment, STATE 908), (sym_if_element, STATE 2660),
     (sym_for_element, STATE 2660), (sym_type_parameters, STATE 2932), (sym__type, STATE 3547),
     (sym__type_not_function, STATE 1796), (sym__type_not_void_not_function, STATE 1896),
     (sym_function_type, STATE 1848), (aux_sym__function_type_tails, STATE 1605),
     (sym__function_type_tail, STATE 1704), (sym_record_type, STATE 1805),
     (sym__type_name, STATE 2126), (sym__final_var_or_type, STATE 3469),
     (sym_inferred_type, STATE 3547), (sym__formal_parameter_part, STATE 2339),
     (sym_formal_parameter_list, STATE 2020), (sym__strict_formal_parameter_list, STATE 2016),
     (sym_qualified, STATE 2124), (sym__function_builtin_identifier, STATE 1463),
     (sym__new_builtin, STATE 2079), (sym_final_builtin, STATE 2100), (sym_this, STATE 962),
     (sym_super, STATE 1337), (sym_comment, STATE 51), (sym_documentation_comment, STATE 51),
     (aux_sym_string_literal_repeat1, STATE 474), (sym_identifier, ACTIONS 450),
     (anon_sym_POUND, ACTIONS 73), (sym_decimal_integer_literal, ACTIONS 75),
     (sym_hex_integer_literal, ACTIONS 77), (sym_decimal_floating_point_literal, ACTIONS 75),
     (anon_sym_true, ACTIONS 79), (anon_sym_false, ACTIONS 81), (anon_sym_DQUOTE, ACTIONS 83),
     (anon_sym_SQUOTE, ACTIONS 85), (anon_sym_DQUOTE_DQUOTE_DQUOTE, ACTIONS 87),
     (anon_sym_SQUOTE_SQUOTE_SQUOTE, ACTIONS 89), (anon_sym_r_DQUOTE, ACTIONS 91),
     (anon_sym_r_SQUOTE, ACTIONS 93), (anon_sym_r_DQUOTE_DQUOTE_DQUOTE, ACTIONS 95),
     (anon_sym_r_SQUOTE_SQUOTE_SQUOTE, ACTIONS 97), (anon_sym_LBRACE, ACTIONS 390),
     (anon_sym_LBRACK, ACTIONS 392), (anon_sym_RBRACK, ACTIONS 452),
     (anon_sym_null, ACTIONS 105), (anon_sym_LPAREN, ACTIONS 107), (anon_sym_throw, ACTIONS 109),
     (sym_equality_operator, ACTIONS 396), (anon_sym_LT, ACTIONS 398),
     (anon_sym_GT, ACTIONS 400), (anon_sym_LT_EQ, ACTIONS 402), (anon_sym_GT_EQ, ACTIONS 402),
     (sym_increment_operator, ACTIONS 113), (anon_sym_DOT_DOT_DOT, ACTIONS 404),
     (sym_minus_operator, ACTIONS 406), (anon_sym_BANG, ACTIONS 408),
     (anon_sym_TILDE, ACTIONS 121), (anon_sym_await, ACTIONS 410),
     (anon_sym_switch, ACTIONS 412), (anon_sym_if, ACTIONS 414), (anon_sym_for, ACTIONS 416),
     (anon_sym_final, ACTIONS 145), (sym_void_type, ACTIONS 33), (anon_sym_var, ACTIONS 35),
     (sym_rethrow_builtin, ACTIONS 151), (anon_sym_Function, ACTIONS 45),
     (anon_sym_new, ACTIONS 155), (sym_const_builtin, ACTIONS 454), (anon_sym_this, ACTIONS 159),
     (anon_sym_super, ACTIONS 161), (anon_sym_SLASH_SLASH, ACTIONS 3),
     (anon_sym_SLASH_STAR, ACTIONS 5), (anon_sym_SLASH_SLASH_SLASH, ACTIONS 7),
     (sym__block_comment, ACTIONS 9), (sym__documentation_block_comment, ACTIONS 11)]"

lemma row_ok_51: "table_row_ok 51 ts_parse_table_51"
  by (simp add: row_simps ts_parse_table_51_def)

definition ts_parse_table_52 :: table_row where
  "ts_parse_table_52 = [
     (sym__bool_literal, STATE 1245), (sym__numeric_literal, STATE 1245),
     (sym__literal, STATE 962), (sym_symbol_literal, STATE 1245), (sym_true, STATE 900),
     (sym_false, STATE 900), (sym_string_literal, STATE 1245),
     (sym__string_literal_double_quotes, STATE 627),
     (sym__string_literal_single_quotes, STATE 627),
     (sym__string_literal_double_quotes_multiple, STATE 627),
     (sym__string_literal_single_quotes_multiple, STATE 627),
     (sym__raw_string_literal_double_quotes, STATE 627),
     (sym__raw_string_literal_single_quotes, STATE 627),
     (sym__raw_string_literal_double_quotes_multiple, STATE 627),
     (sym__raw_string_literal_single_quotes_multiple, STATE 627), (sym_list_literal, STATE 989),
     (sym_set_or_map_literal, STATE 989), (sym_pair, STATE 2660), (sym__element, STATE 2954),
     (sym_null_literal, STATE 1245), (sym_record_literal, STATE 989),
     (sym__record_literal_no_const, STATE 924), (sym__expression, STATE 2562),
     (sym__real_expression, STATE 660), (sym_throw_expression, STATE 908),
     (sym_rethrow_expression, STATE 908), (sym_assignment_expression, STATE 908),
     (sym_assignable_expression, STATE 1940), (sym_function_expression, STATE 962),
     (sym_if_null_expression, STATE 1477), (sym_conditional_expression, STATE 1477),
     (sym_logical_or_expression, STATE 1477), (sym_logical_and_expression, STATE 1477),
     (sym_equality_expression, STATE 1477), (sym_type_cast_expression, STATE 1477),
     (sym_type_test_expression, STATE 1477), (sym_relational_expression, STATE 1477),
     (sym_relational_operator, STATE 345), (sym_bitwise_or_expression, STATE 1477),
     (sym_bitwise_xor_expression, STATE 1477), (sym_bitwise_and_expression, STATE 1477),
     (sym_shift_expression, STATE 1477), (sym_additive_expression, STATE 1477),
     (sym_multiplicative_expression, STATE 1477), (sym__unary_expression, STATE 1121),
     (sym_unary_expression, STATE 1303), (sym__postfix_expression, STATE 1303),
     (sym_postfix_expression, STATE 1301), (sym_spread_element, STATE 2660),
     (sym_prefix_operator, STATE 431), (sym_negation_operator, STATE 1450),
     (sym__exclamation_operator, STATE 1451), (sym_tilde_operator, STATE 1385),
     (sym_await_expression, STATE 1302), (sym_new_expression, STATE 962),
     (sym_const_object_expression, STATE 1249), (sym__primary, STATE 668),
     (sym_parenthesized_expression, STATE 962), (sym_constructor_invocation, STATE 643),
     (sym_constructor_tearoff, STATE 962), (sym_type_arguments, STATE 3161),
     (sym_switch_expression, STATE 962), (sym__pattern, STATE 3099),
     (sym__logical_or_pattern, STATE 2373), (sym__logical_and_pattern, STATE 2152),
     (sym__relational_pattern, STATE 2147), (sym__unary_pattern, STATE 2230),
     (sym__primary_pattern, STATE 2129), (sym_cast_pattern, STATE 2231),
     (sym_null_check_pattern, STATE 2231), (sym_null_assert_pattern, STATE 2231),
     (sym_constant_pattern, STATE 2102), (sym_variable_pattern, STATE 2102),
     (sym__parenthesized_pattern, STATE 2158), (sym_list_pattern, STATE 2158),
     (sym__list_pattern_element, STATE 2972), (sym_rest_pattern, STATE 3099),
     (sym_map_pattern, STATE 2158), (sym_record_pattern, STATE 2158),
     (sym_object_pattern, STATE 2158), (sym__outer_pattern, STATE 3410),
     (sym_pattern_assignment, STATE 908), (sym_if_element, STATE 2660),
     (sym_for_element, STATE 2660), (sym_type_parameters, STATE 2932), (sym__type, STATE 3547),
     (sym__type_not_function, STATE 1796), (sym__type_not_void_not_function, STATE 1896),
     (sym_function_type, STATE 1848), (aux_sym__function_type_tails, STATE 1605),
     (sym__function_type_tail, STATE 1704), (sym_record_type, STATE 1805),
     (sym__type_name, STATE 2126), (sym__final_var_or_type, STATE 3469),
     (sym_inferred_type, STATE 3547), (sym__formal_parameter_part, STATE 2339),
     (sym_formal_parameter_list, STATE 2020), (sym__strict_formal_parameter_list, STATE 2016),
     (sym_qualified, STATE 2124), (sym__function_builtin_identifier, STATE 1463),
     (sym__new_builtin, STATE 2079), (sym_final_builtin, STATE 2100), (sym_this, STATE 962),
     (sym_super, STATE 1337), (sym_comment, STATE 52), (sym_documentation_comment, STATE 52),
     (aux_sym_string_literal_repeat1, STATE 474), (sym_identifier, ACTIONS 450),
     (anon_sym_POUND, ACTIONS 73), (sym_decimal_integer_literal, ACTIONS 75),
     (sym_hex_integer_literal, ACTIONS 77), (sym_decimal_floating_point_literal, ACTIONS 75),
     (anon_sym_true, ACTIONS 79), (anon_sym_false, ACTIONS 81), (anon_sym_DQUOTE, ACTIONS 83),
     (anon_sym_SQUOTE, ACTIONS 85), (anon_sym_DQUOTE_DQUOTE_DQUOTE, ACTIONS 87),
     (anon_sym_SQUOTE_SQUOTE_SQUOTE, ACTIONS 89), (anon_sym_r_DQUOTE, ACTIONS 91),
     (anon_sym_r_SQUOTE, ACTIONS 93), (anon_sym_r_DQUOTE_DQUOTE_DQUOTE, ACTIONS 95),
     (anon_sym_r_SQUOTE_SQUOTE_SQUOTE, ACTIONS 97), (anon_sym_LBRACE, ACTIONS 390),
     (anon_sym_LBRACK, ACTIONS 392), (anon_sym_RBRACK, ACTIONS 456),
     (anon_sym_null, ACTIONS 105), (anon_sym_LPAREN, ACTIONS 107), (anon_sym_throw, ACTIONS 109),
     (sym_equality_operator, ACTIONS 396), (anon_sym_LT, ACTIONS 398),
     (anon_sym_GT, ACTIONS 400), (anon_sym_LT_EQ, ACTIONS 402), (anon_sym_GT_EQ, ACTIONS 402),
     (sym_increment_operator, ACTIONS 113), (anon_sym_DOT_DOT_DOT, ACTIONS 404),
     (sym_minus_operator, ACTIONS 406), (anon_sym_BANG, ACTIONS 408),
     (anon_sym_TILDE, ACTIONS 121), (anon_sym_await, ACTIONS 410),
     (anon_sym_switch, ACTIONS 412), (anon_sym_if, ACTIONS 414), (anon_sym_for, ACTIONS 416),
     (anon_sym_final, ACTIONS 145), (sym_void_type, ACTIONS 33), (anon_sym_var, ACTIONS 35),
     (sym_rethrow_builtin, ACTIONS 151), (anon_sym_Function, ACTIONS 45),
     (anon_sym_new, ACTIONS 155), (sym_const_builtin, ACTIONS 454), (anon_sym_this, ACTIONS 159),
     (anon_sym_super, ACTIONS 161), (anon_sym_SLASH_SLASH, ACTIONS 3),
     (anon_sym_SLASH_STAR, ACTIONS 5), (anon_sym_SLASH_SLASH_SLASH, ACTIONS 7),
     (sym__block_comment, ACTIONS 9), (sym__documentation_block_comment, ACTIONS 11)]"

lemma row_ok_52: "table_row_ok 52 ts_parse_table_52"
  by (simp add: row_simps ts_parse_table_52_def)

definition ts_parse_table_53 :: table_row where
  "ts_parse_table_53 = [
     (sym__bool_literal, STATE 1245), (sym__numeric_literal, STATE 1245),
     (sym__literal, STATE 962), (sym_symbol_literal, STATE 1245), (sym_true, STATE 900),
     (sym_false, STATE 900), (sym_string_literal, STATE 1245),
     (sym__string_literal_double_quotes, STATE 627),
     (sym__string_literal_single_quotes, STATE 627),
     (sym__string_literal_double_quotes_multiple, STATE 627),
     (sym__string_literal_single_quotes_multiple, STATE 627),
     (sym__raw_string_literal_double_quotes, STATE 627),
     (sym__raw_string_literal_single_quotes, STATE 627),
     (sym__raw_string_literal_double_quotes_multiple, STATE 627),
     (sym__raw_string_literal_single_quotes_multiple, STATE 627), (sym_list_literal, STATE 989),
     (sym_set_or_map_literal, STATE 989), (sym_pair, STATE 2660), (sym__element, STATE 2786),
     (sym_null_literal, STATE 1245), (sym_record_literal, STATE 989),
     (sym__record_literal_no_const, STATE 924), (sym__expression, STATE 2562),
     (sym__real_expression, STATE 660), (sym_throw_expression, STATE 908),
     (sym_rethrow_expression, STATE 908), (sym_assignment_expression, STATE 908),
     (sym_assignable_expression, STATE 1940), (sym_function_expression, STATE 962),
     (sym_if_null_expression, STATE 1477), (sym_conditional_expression, STATE 1477),
     (sym_logical_or_expression, STATE 1477), (sym_logical_and_expression, STATE 1477),
     (sym_equality_expression, STATE 1477), (sym_type_cast_expression, STATE 1477),
     (sym_type_test_expression, STATE 1477), (sym_relational_expression, STATE 1477),
     (sym_relational_operator, STATE 345), (sym_bitwise_or_expression, STATE 1477),
     (sym_bitwise_xor_expression, STATE 1477), (sym_bitwise_and_expression, STATE 1477),
     (sym_shift_expression, STATE 1477), (sym_additive_expression, STATE 1477),
     (sym_multiplicative_expression, STATE 1477), (sym__unary_expression, STATE 1121),
     (sym_unary_expression, STATE 1303), (sym__postfix_expression, STATE 1303),
     (sym_postfix_expression, STATE 1301), (sym_spread_element, STATE 2660),
     (sym_prefix_operator, STATE 431), (sym_negation_operator, STATE 1450),
     (sym__exclamation_operator, STATE 1451), (sym_tilde_operator, STATE 1385),
     (sym_await_expression, STATE 1302), (sym_new_expression, STATE 962),
     (sym_const_object_expression, STATE 1249), (sym__primary, STATE 668),
     (sym_parenthesized_expression, STATE 962), (sym_constructor_invocation, STATE 643),
     (sym_constructor_tearoff, STATE 962), (sym_type_arguments, STATE 3161),
     (sym_switch_expression, STATE 962), (sym__pattern, STATE 3099),
     (sym__logical_or_pattern, STATE 2373), (sym__logical_and_pattern, STATE 2152),
     (sym__relational_pattern, STATE 2147), (sym__unary_pattern, STATE 2230),
     (sym__primary_pattern, STATE 2129), (sym_cast_pattern, STATE 2231),
     (sym_null_check_pattern, STATE 2231), (sym_null_assert_pattern, STATE 2231),
     (sym_constant_pattern, STATE 2102), (sym_variable_pattern, STATE 2102),
     (sym__parenthesized_pattern, STATE 2158), (sym_list_pattern, STATE 2158),
     (sym__list_pattern_element, STATE 2771), (sym_rest_pattern, STATE 3099),
     (sym_map_pattern, STATE 2158), (sym_record_pattern, STATE 2158),
     (sym_object_pattern, STATE 2158), (sym__outer_pattern, STATE 3410),
     (sym_pattern_assignment, STATE 908), (sym_if_element, STATE 2660),
     (sym_for_element, STATE 2660), (sym_type_parameters, STATE 2932), (sym__type, STATE 3547),
     (sym__type_not_function, STATE 1796), (sym__type_not_void_not_function, STATE 1896),
     (sym_function_type, STATE 1848), (aux_sym__function_type_tails, STATE 1605),
     (sym__function_type_tail, STATE 1704), (sym_record_type, STATE 1805),
     (sym__type_name, STATE 2126), (sym__final_var_or_type, STATE 3469),
     (sym_inferred_type, STATE 3547), (sym__formal_parameter_part, STATE 2339),
     (sym_formal_parameter_list, STATE 2020), (sym__strict_formal_parameter_list, STATE 2016),
     (sym_qualified, STATE 2124), (sym__function_builtin_identifier, STATE 1463),
     (sym__new_builtin, STATE 2079), (sym_final_builtin, STATE 2100), (sym_this, STATE 962),
     (sym_super, STATE 1337), (sym_comment, STATE 53), (sym_documentation_comment, STATE 53),
     (aux_sym_string_literal_repeat1, STATE 474), (sym_identifier, ACTIONS 450),
     (anon_sym_POUND, ACTIONS 73), (sym_decimal_integer_literal, ACTIONS 75),
     (sym_hex_integer_literal, ACTIONS 77), (sym_decimal_floating_point_literal, ACTIONS 75),
     (anon_sym_true, ACTIONS 79), (anon_sym_false, ACTIONS 81), (anon_sym_DQUOTE, ACTIONS 83),
     (anon_sym_SQUOTE, ACTIONS 85), (anon_sym_DQUOTE_DQUOTE_DQUOTE, ACTIONS 87),
     (anon_sym_SQUOTE_SQUOTE_SQUOTE, ACTIONS 89), (anon_sym_r_DQUOTE, ACTIONS 91),
     (anon_sym_r_SQUOTE, ACTIONS 93), (anon_sym_r_DQUOTE_DQUOTE_DQUOTE, ACTIONS 95),
     (anon_sym_r_SQUOTE_SQUOTE_SQUOTE, ACTIONS 97), (anon_sym_LBRACE, ACTIONS 390),
     (anon_sym_LBRACK, ACTIONS 392), (anon_sym_RBRACK, ACTIONS 420),
     (anon_sym_null, ACTIONS 105), (anon_sym_LPAREN, ACTIONS 107), (anon_sym_throw, ACTIONS 109),
     (sym_equality_operator, ACTIONS 396), (anon_sym_LT, ACTIONS 398),
     (anon_sym_GT, ACTIONS 400), (anon_sym_LT_EQ, ACTIONS 402), (anon_sym_GT_EQ, ACTIONS 402),
     (sym_increment_operator, ACTIONS 113), (anon_sym_DOT_DOT_DOT, ACTIONS 404),
     (sym_minus_operator, ACTIONS 406), (anon_sym_BANG, ACTIONS 408),
     (anon_sym_TILDE, ACTIONS 121), (anon_sym_await, ACTIONS 410),
     (anon_sym_switch, ACTIONS 412), (anon_sym_if, ACTIONS 414), (anon_sym_for, ACTIONS 416),
     (anon_sym_final, ACTIONS 145), (sym_void_type, ACTIONS 33), (anon_sym_var, ACTIONS 35),
     (sym_rethrow_builtin, ACTIONS 151), (anon_sym_Function, ACTIONS 45),
     (anon_sym_new, ACTIONS 155), (sym_const_builtin, ACTIONS 454), (anon_sym_this, ACTIONS 159),
     (anon_sym_super, ACTIONS 161), (anon_sym_SLASH_SLASH, ACTIONS 3),
     (anon_sym_SLASH_STAR, ACTIONS 5), (anon_sym_SLASH_SLASH_SLASH, ACTIONS 7),
     (sym__block_comment, ACTIONS 9), (sym__documentation_block_comment, ACTIONS 11)]"

lemma row_ok_53: "table_row_ok 53 ts_parse_table_53"
  by (simp add: row_simps ts_parse_table_53_def)

definition ts_parse_table_54 :: table_row where
  "ts_parse_table_54 = [
     (sym__bool_literal, STATE 1245), (sym__numeric_literal, STATE 1245),
     (sym__literal, STATE 962), (sym_symbol_literal, STATE 1245), (sym_true, STATE 900),
     (sym_false, STATE 900), (sym_string_literal, STATE 1245),
     (sym__string_literal_double_quotes, STATE 627),
     (sym__string_literal_single_quotes, STATE 627),
     (sym__string_literal_double_quotes_multiple, STATE 627),
     (sym__string_literal_single_quotes_multiple, STATE 627),
     (sym__raw_string_literal_double_quotes, STATE 627),
     (sym__raw_string_literal_single_quotes, STATE 627),
     (sym__raw_string_literal_double_quotes_multiple, STATE 627),
     (sym__raw_string_literal_single_quotes_multiple, STATE 627), (sym_list_literal, STATE 989),
     (sym_set_or_map_literal, STATE 989), (sym_pair, STATE 2660), (sym__element, STATE 2954),
     (sym_null_literal, STATE 1245), (sym_record_literal, STATE 989),
     (sym__record_literal_no_const, STATE 924), (sym__expression, STATE 2562),
     (sym__real_expression, STATE 660), (sym_throw_expression, STATE 908),
     (sym_rethrow_expression, STATE 908), (sym_assignment_expression, STATE 908),
     (sym_assignable_expression, STATE 1940), (sym_function_expression, STATE 962),
     (sym_if_null_expression, STATE 1477), (sym_conditional_expression, STATE 1477),
     (sym_logical_or_expression, STATE 1477), (sym_logical_and_expression, STATE 1477),
     (sym_equality_expression, STATE 1477), (sym_type_cast_expression, STATE 1477),
     (sym_type_test_expression, STATE 1477), (sym_relational_expression, STATE 1477),
     (sym_relational_operator, STATE 345), (sym_bitwise_or_expression, STATE 1477),
     (sym_bitwise_xor_expression, STATE 1477), (sym_bitwise_and_expression, STATE 1477),
     (sym_shift_expression, STATE 1477), (sym_additive_expression, STATE 1477),
     (sym_multiplicative_expression, STATE 1477), (sym__unary_expression, STATE 1121),
     (sym_unary_expression, STATE 1303), (sym__postfix_expression, STATE 1303),
     (sym_postfix_expression, STATE 1301), (sym_spread_element, STATE 2660),
     (sym_prefix_operator, STATE 431), (sym_negation_operator, STATE 1450),
     (sym__exclamation_operator, STATE 1451), (sym_tilde_operator, STATE 1385),
     (sym_await_expression, STATE 1302), (sym_new_expression, STATE 962),
     (sym_const_object_expression, STATE 1249), (sym__primary, STATE 668),
     (sym_parenthesized_expression, STATE 962), (sym_constructor_invocation, STATE 643),
     (sym_constructor_tearoff, STATE 962), (sym_type_arguments, STATE 3161),
     (sym_switch_expression, STATE 962), (sym__pattern, STATE 3099),
     (sym__logical_or_pattern, STATE 2373), (sym__logical_and_pattern, STATE 2152),
     (sym__relational_pattern, STATE 2147), (sym__unary_pattern, STATE 2230),
     (sym__primary_pattern, STATE 2129), (sym_cast_pattern, STATE 2231),
     (sym_null_check_pattern, STATE 2231), (sym_null_assert_pattern, STATE 2231),
     (sym_constant_pattern, STATE 2102), (sym_variable_pattern, STATE 2102),
     (sym__parenthesized_pattern, STATE 2158), (sym_list_pattern, STATE 2158),
     (sym__list_pattern_element, STATE 2972), (sym_rest_pattern, STATE 3099),
     (sym_map_pattern, STATE 2158), (sym_record_pattern, STATE 2158),
     (sym_object_pattern, STATE 2158), (sym__outer_pattern, STATE 3410),
     (sym_pattern_assignment, STATE 908), (sym_if_element, STATE 2660),
     (sym_for_element, STATE 2660), (sym_type_parameters, STATE 2932), (sym__type, STATE 3547),
     (sym__type_not_function, STATE 1796), (sym__type_not_void_not_function, STATE 1896),
     (sym_function_type, STATE 1848), (aux_sym__function_type_tails, STATE 1605),
     (sym__function_type_tail, STATE 1704), (sym_record_type, STATE 1805),
     (sym__type_name, STATE 2126), (sym__final_var_or_type, STATE 3469),
     (sym_inferred_type, STATE 3547), (sym__formal_parameter_part, STATE 2339),
     (sym_formal_parameter_list, STATE 2020), (sym__strict_formal_parameter_list, STATE 2016),
     (sym_qualified, STATE 2124), (sym__function_builtin_identifier, STATE 1463),
     (sym__new_builtin, STATE 2079), (sym_final_builtin, STATE 2100), (sym_this, STATE 962),
     (sym_super, STATE 1337), (sym_comment, STATE 54), (sym_documentation_comment, STATE 54),
     (aux_sym_string_literal_repeat1, STATE 474), (sym_identifier, ACTIONS 450),
     (anon_sym_POUND, ACTIONS 73), (sym_decimal_integer_literal, ACTIONS 75),
     (sym_hex_integer_literal, ACTIONS 77), (sym_decimal_floating_point_literal, ACTIONS 75),
     (anon_sym_true, ACTIONS 79), (anon_sym_false, ACTIONS 81), (anon_sym_DQUOTE, ACTIONS 83),
     (anon_sym_SQUOTE, ACTIONS 85), (anon_sym_DQUOTE_DQUOTE_DQUOTE, ACTIONS 87),
     (anon_sym_SQUOTE_SQUOTE_SQUOTE, ACTIONS 89), (anon_sym_r_DQUOTE, ACTIONS 91),
     (anon_sym_r_SQUOTE, ACTIONS 93), (anon_sym_r_DQUOTE_DQUOTE_DQUOTE, ACTIONS 95),
     (anon_sym_r_SQUOTE_SQUOTE_SQUOTE, ACTIONS 97), (anon_sym_LBRACE, ACTIONS 390),
     (anon_sym_LBRACK, ACTIONS 392), (anon_sym_RBRACK, ACTIONS 458),
     (anon_sym_null, ACTIONS 105), (anon_sym_LPAREN, ACTIONS 107), (anon_sym_throw, ACTIONS 109),
     (sym_equality_operator, ACTIONS 396), (anon_sym_LT, ACTIONS 398),
     (anon_sym_GT, ACTIONS 400), (anon_sym_LT_EQ, ACTIONS 402), (anon_sym_GT_EQ, ACTIONS 402),
     (sym_increment_operator, ACTIONS 113), (anon_sym_DOT_DOT_DOT, ACTIONS 404),
     (sym_minus_operator, ACTIONS 406), (anon_sym_BANG, ACTIONS 408),
     (anon_sym_TILDE, ACTIONS 121), (anon_sym_await, ACTIONS 410),
     (anon_sym_switch, ACTIONS 412), (anon_sym_if, ACTIONS 414), (anon_sym_for, ACTIONS 416),
     (anon_sym_final, ACTIONS 145), (sym_void_type, ACTIONS 33), (anon_sym_var, ACTIONS 35),
     (sym_rethrow_builtin, ACTIONS 151), (anon_sym_Function, ACTIONS 45),
     (anon_sym_new, ACTIONS 155), (sym_const_builtin, ACTIONS 454), (anon_sym_this, ACTIONS 159),
     (anon_sym_super, ACTIONS 161), (anon_sym_SLASH_SLASH, ACTIONS 3),
     (anon_sym_SLASH_STAR, ACTIONS 5), (anon_sym_SLASH_SLASH_SLASH, ACTIONS 7),
     (sym__block_comment, ACTIONS 9), (sym__documentation_block_comment, ACTIONS 11)]"

lemma row_ok_54: "table_row_ok 54 ts_parse_table_54"
  by (simp add: row_simps ts_parse_table_54_def)

definition ts_parse_table_55 :: table_row where
  "ts_parse_table_55 = [
     (sym__bool_literal, STATE 1245), (sym__numeric_literal, STATE 1245),
     (sym__literal, STATE 962), (sym_symbol_literal, STATE 1245), (sym_true, STATE 900),
     (sym_false, STATE 900), (sym_string_literal, STATE 1245),
     (sym__string_literal_double_quotes, STATE 627),
     (sym__string_literal_single_quotes, STATE 627),
     (sym__string_literal_double_quotes_multiple, STATE 627),
     (sym__string_literal_single_quotes_multiple, STATE 627),
     (sym__raw_string_literal_double_quotes, STATE 627),
     (sym__raw_string_literal_single_quotes, STATE 627),
     (sym__raw_string_literal_double_quotes_multiple, STATE 627),
     (sym__raw_string_literal_single_quotes_multiple, STATE 627), (sym_list_literal, STATE 989),
     (sym_set_or_map_literal, STATE 989), (sym_pair, STATE 2660), (sym__element, STATE 2786),
     (sym_null_literal, STATE 1245), (sym_record_literal, STATE 989),
     (sym__record_literal_no_const, STATE 924), (sym__expression, STATE 2562),
     (sym__real_expression, STATE 660), (sym_throw_expression, STATE 908),
     (sym_rethrow_expression, STATE 908), (sym_assignment_expression, STATE 908),
     (sym_assignable_expression, STATE 1940), (sym_function_expression, STATE 962),
     (sym_if_null_expression, STATE 1477), (sym_conditional_expression, STATE 1477),
     (sym_logical_or_expression, STATE 1477), (sym_logical_and_expression, STATE 1477),
     (sym_equality_expression, STATE 1477), (sym_type_cast_expression, STATE 1477),
     (sym_type_test_expression, STATE 1477), (sym_relational_expression, STATE 1477),
     (sym_relational_operator, STATE 345), (sym_bitwise_or_expression, STATE 1477),
     (sym_bitwise_xor_expression, STATE 1477), (sym_bitwise_and_expression, STATE 1477),
     (sym_shift_expression, STATE 1477), (sym_additive_expression, STATE 1477),
     (sym_multiplicative_expression, STATE 1477), (sym__unary_expression, STATE 1121),
     (sym_unary_expression, STATE 1303), (sym__postfix_expression, STATE 1303),
     (sym_postfix_expression, STATE 1301), (sym_spread_element, STATE 2660),
     (sym_prefix_operator, STATE 431), (sym_negation_operator, STATE 1450),
     (sym__exclamation_operator, STATE 1451), (sym_tilde_operator, STATE 1385),
     (sym_await_expression, STATE 1302), (sym_new_expression, STATE 962),
     (sym_const_object_expression, STATE 1249), (sym__primary, STATE 668),
     (sym_parenthesized_expression, STATE 962), (sym_constructor_invocation, STATE 643),
     (sym_constructor_tearoff, STATE 962), (sym_type_arguments, STATE 3161),
     (sym_switch_expression, STATE 962), (sym__pattern, STATE 3099),
     (sym__logical_or_pattern, STATE 2373), (sym__logical_and_pattern, STATE 2152),
     (sym__relational_pattern, STATE 2147), (sym__unary_pattern, STATE 2230),
     (sym__primary_pattern, STATE 2129), (sym_cast_pattern, STATE 2231),
     (sym_null_check_pattern, STATE 2231), (sym_null_assert_pattern, STATE 2231),
     (sym_constant_pattern, STATE 2102), (sym_variable_pattern, STATE 2102),
     (sym__parenthesized_pattern, STATE 2158), (sym_list_pattern, STATE 2158),
     (sym__list_pattern_element, STATE 2771), (sym_rest_pattern, STATE 3099),
     (sym_map_pattern, STATE 2158), (sym_record_pattern, STATE 2158),
     (sym_object_pattern, STATE 2158), (sym__outer_pattern, STATE 3410),
     (sym_pattern_assignment, STATE 908), (sym_if_element, STATE 2660),
     (sym_for_element, STATE 2660), (sym_type_parameters, STATE 2932), (sym__type, STATE 3547),
     (sym__type_not_function, STATE 1796), (sym__type_not_void_not_function, STATE 1896),
     (sym_function_type, STATE 1848), (aux_sym__function_type_tails, STATE 1605),
     (sym__function_type_tail, STATE 1704), (sym_record_type, STATE 1805),
     (sym__type_name, STATE 2126), (sym__final_var_or_type, STATE 3469),
     (sym_inferred_type, STATE 3547), (sym__formal_parameter_part, STATE 2339),
     (sym_formal_parameter_list, STATE 2020), (sym__strict_formal_parameter_list, STATE 2016),
     (sym_qualified, STATE 2124), (sym__function_builtin_identifier, STATE 1463),
     (sym__new_builtin, STATE 2079), (sym_final_builtin, STATE 2100), (sym_this, STATE 962),
     (sym_super, STATE 1337), (sym_comment, STATE 55), (sym_documentation_comment, STATE 55),
     (aux_sym_string_literal_repeat1, STATE 474), (sym_identifier, ACTIONS 450),
     (anon_sym_POUND, ACTIONS 73), (sym_decimal_integer_literal, ACTIONS 75),
     (sym_hex_integer_literal, ACTIONS 77), (sym_decimal_floating_point_literal, ACTIONS 75),
     (anon_sym_true, ACTIONS 79), (anon_sym_false, ACTIONS 81), (anon_sym_DQUOTE, ACTIONS 83),
     (anon_sym_SQUOTE, ACTIONS 85), (anon_sym_DQUOTE_DQUOTE_DQUOTE, ACTIONS 87),
     (anon_sym_SQUOTE_SQUOTE_SQUOTE, ACTIONS 89), (anon_sym_r_DQUOTE, ACTIONS 91),
     (anon_sym_r_SQUOTE, ACTIONS 93), (anon_sym_r_DQUOTE_DQUOTE_DQUOTE, ACTIONS 95),
     (anon_sym_r_SQUOTE_SQUOTE_SQUOTE, ACTIONS 97), (anon_sym_LBRACE, ACTIONS 390),
     (anon_sym_LBRACK, ACTIONS 392), (anon_sym_RBRACK, ACTIONS 394),
     (anon_sym_null, ACTIONS 105), (anon_sym_LPAREN, ACTIONS 107), (anon_sym_throw, ACTIONS 109),
     (sym_equality_operator, ACTIONS 396), (anon_sym_LT, ACTIONS 398),
     (anon_sym_GT, ACTIONS 400), (anon_sym_LT_EQ, ACTIONS 402), (anon_sym_GT_EQ, ACTIONS 402),
     (sym_increment_operator, ACTIONS 113), (anon_sym_DOT_DOT_DOT, ACTIONS 404),
     (sym_minus_operator, ACTIONS 406), (anon_sym_BANG, ACTIONS 408),
     (anon_sym_TILDE, ACTIONS 121), (anon_sym_await, ACTIONS 410),
     (anon_sym_switch, ACTIONS 412), (anon_sym_if, ACTIONS 414), (anon_sym_for, ACTIONS 416),
     (anon_sym_final, ACTIONS 145), (sym_void_type, ACTIONS 33), (anon_sym_var, ACTIONS 35),
     (sym_rethrow_builtin, ACTIONS 151), (anon_sym_Function, ACTIONS 45),
     (anon_sym_new, ACTIONS 155), (sym_const_builtin, ACTIONS 454), (anon_sym_this, ACTIONS 159),
     (anon_sym_super, ACTIONS 161), (anon_sym_SLASH_SLASH, ACTIONS 3),
     (anon_sym_SLASH_STAR, ACTIONS 5), (anon_sym_SLASH_SLASH_SLASH, ACTIONS 7),
     (sym__block_comment, ACTIONS 9), (sym__documentation_block_comment, ACTIONS 11)]"

lemma row_ok_55: "table_row_ok 55 ts_parse_table_55"
  by (simp add: row_simps ts_parse_table_55_def)

definition ts_parse_table_56 :: table_row where
  "ts_parse_table_56 = [
     (sym__bool_literal, STATE 1245), (sym__numeric_literal, STATE 1245),
     (sym__literal, STATE 962), (sym_symbol_literal, STATE 1245), (sym_true, STATE 900),
     (sym_false, STATE 900), (sym_string_literal, STATE 1245),
     (sym__string_literal_double_quotes, STATE 627),
     (sym__string_literal_single_quotes, STATE 627),
     (sym__string_literal_double_quotes_multiple, STATE 627),
     (sym__string_literal_single_quotes_multiple, STATE 627),
     (sym__raw_string_literal_double_quotes, STATE 627),
     (sym__raw_string_literal_single_quotes, STATE 627),
     (sym__raw_string_literal_double_quotes_multiple, STATE 627),
     (sym__raw_string_literal_single_quotes_multiple, STATE 627), (sym_list_literal, STATE 989),
     (sym_set_or_map_literal, STATE 989), (sym_pair, STATE 2660), (sym__element, STATE 2802),
     (sym_null_literal, STATE 1245), (sym_record_literal, STATE 989),
     (sym__record_literal_no_const, STATE 924), (sym__expression, STATE 2562),
     (sym__real_expression, STATE 660), (sym_throw_expression, STATE 908),
     (sym_rethrow_expression, STATE 908), (sym_assignment_expression, STATE 908),
     (sym_assignable_expression, STATE 1940), (sym_function_expression, STATE 962),
     (sym_if_null_expression, STATE 1477), (sym_conditional_expression, STATE 1477),
     (sym_logical_or_expression, STATE 1477), (sym_logical_and_expression, STATE 1477),
     (sym_equality_expression, STATE 1477), (sym_type_cast_expression, STATE 1477),
     (sym_type_test_expression, STATE 1477), (sym_relational_expression, STATE 1477),
     (sym_relational_operator, STATE 345), (sym_bitwise_or_expression, STATE 1477),
     (sym_bitwise_xor_expression, STATE 1477), (sym_bitwise_and_expression, STATE 1477),
     (sym_shift_expression, STATE 1477), (sym_additive_expression, STATE 1477),
     (sym_multiplicative_expression, STATE 1477), (sym__unary_expression, STATE 1121),
     (sym_unary_expression, STATE 1303), (sym__postfix_expression, STATE 1303),
     (sym_postfix_expression, STATE 1301), (sym_spread_element, STATE 2660),
     (sym_prefix_operator, STATE 431), (sym_negation_operator, STATE 1450),
     (sym__exclamation_operator, STATE 1451), (sym_tilde_operator, STATE 1385),
     (sym_await_expression, STATE 1302), (sym_new_expression, STATE 962),
     (sym_const_object_expression, STATE 1249), (sym__primary, STATE 668),
     (sym_parenthesized_expression, STATE 962), (sym_constructor_invocation, STATE 643),
     (sym_constructor_tearoff, STATE 962), (sym_type_arguments, STATE 3161),
     (sym_switch_expression, STATE 962), (sym__pattern, STATE 3099),
     (sym__logical_or_pattern, STATE 2373), (sym__logical_and_pattern, STATE 2152),
     (sym__relational_pattern, STATE 2147), (sym__unary_pattern, STATE 2230),
     (sym__primary_pattern, STATE 2129), (sym_cast_pattern, STATE 2231),
     (sym_null_check_pattern, STATE 2231), (sym_null_assert_pattern, STATE 2231),
     (sym_constant_pattern, STATE 2102), (sym_variable_pattern, STATE 2102),
     (sym__parenthesized_pattern, STATE 2158), (sym_list_pattern, STATE 2158),
     (sym__list_pattern_element, STATE 2972), (sym_rest_pattern, STATE 3099),
     (sym_map_pattern, STATE 2158), (sym_record_pattern, STATE 2158),
     (sym_object_pattern, STATE 2158), (sym__outer_pattern, STATE 3410),
     (sym_pattern_assignment, STATE 908), (sym_if_element, STATE 2660),
     (sym_for_element, STATE 2660), (sym_type_parameters, STATE 2932), (sym__type, STATE 3547),
     (sym__type_not_function, STATE 1796), (sym__type_not_void_not_function, STATE 1896),
     (sym_function_type, STATE 1848), (aux_sym__function_type_tails, STATE 1605),
     (sym__function_type_tail, STATE 1704), (sym_record_type, STATE 1805),
     (sym__type_name, STATE 2126), (sym__final_var_or_type, STATE 3469),
     (sym_inferred_type, STATE 3547), (sym__formal_parameter_part, STATE 2339),
     (sym_formal_parameter_list, STATE 2020), (sym__strict_formal_parameter_list, STATE 2016),
     (sym_qualified, STATE 2124), (sym__function_builtin_identifier, STATE 1463),
     (sym__new_builtin, STATE 2079), (sym_final_builtin, STATE 2100), (sym_this, STATE 962),
     (sym_super, STATE 1337), (sym_comment, STATE 56), (sym_documentation_comment, STATE 56),
     (aux_sym_string_literal_repeat1, STATE 474), (sym_identifier, ACTIONS 450),
     (anon_sym_POUND, ACTIONS 73), (sym_decimal_integer_literal, ACTIONS 75),
     (sym_hex_integer_literal, ACTIONS 77), (sym_decimal_floating_point_literal, ACTIONS 75),
     (anon_sym_true, ACTIONS 79), (anon_sym_false, ACTIONS 81), (anon_sym_DQUOTE, ACTIONS 83),
     (anon_sym_SQUOTE, ACTIONS 85), (anon_sym_DQUOTE_DQUOTE_DQUOTE, ACTIONS 87),
     (anon_sym_SQUOTE_SQUOTE_SQUOTE, ACTIONS 89), (anon_sym_r_DQUOTE, ACTIONS 91),
     (anon_sym_r_SQUOTE, ACTIONS 93), (anon_sym_r_DQUOTE_DQUOTE_DQUOTE, ACTIONS 95),
     (anon_sym_r_SQUOTE_SQUOTE_SQUOTE, ACTIONS 97), (anon_sym_LBRACE, ACTIONS 390),
     (anon_sym_LBRACK, ACTIONS 392), (anon_sym_RBRACK, ACTIONS 460),
     (anon_sym_null, ACTIONS 105), (anon_sym_LPAREN, ACTIONS 107), (anon_sym_throw, ACTIONS 109),
     (sym_equality_operator, ACTIONS 396), (anon_sym_LT, ACTIONS 398),
     (anon_sym_GT, ACTIONS 400), (anon_sym_LT_EQ, ACTIONS 402), (anon_sym_GT_EQ, ACTIONS 402),
     (sym_increment_operator, ACTIONS 113), (anon_sym_DOT_DOT_DOT, ACTIONS 404),
     (sym_minus_operator, ACTIONS 406), (anon_sym_BANG, ACTIONS 408),
     (anon_sym_TILDE, ACTIONS 121), (anon_sym_await, ACTIONS 410),
     (anon_sym_switch, ACTIONS 412), (anon_sym_if, ACTIONS 414), (anon_sym_for, ACTIONS 416),
     (anon_sym_final, ACTIONS 145), (sym_void_type, ACTIONS 33), (anon_sym_var, ACTIONS 35),
     (sym_rethrow_builtin, ACTIONS 151), (anon_sym_Function, ACTIONS 45),
     (anon_sym_new, ACTIONS 155), (sym_const_builtin, ACTIONS 454), (anon_sym_this, ACTIONS 159),
     (anon_sym_super, ACTIONS 161), (anon_sym_SLASH_SLASH, ACTIONS 3),
     (anon_sym_SLASH_STAR, ACTIONS 5), (anon_sym_SLASH_SLASH_SLASH, ACTIONS 7),
     (sym__block_comment, ACTIONS 9), (sym__documentation_block_comment, ACTIONS 11)]"

lemma row_ok_56: "table_row_ok 56 ts_parse_table_56"
  by (simp add: row_simps ts_parse_table_56_def)

definition ts_parse_table_57 :: table_row where
  "ts_parse_table_57 = [
     (sym__bool_literal, STATE 989), (sym__numeric_literal, STATE 989),
     (sym__literal, STATE 962), (sym_symbol_literal, STATE 989), (sym_true, STATE 900),
     (sym_false, STATE 900), (sym_string_literal, STATE 989),
     (sym__string_literal_double_quotes, STATE 627),
     (sym__string_literal_single_quotes, STATE 627),
     (sym__string_literal_double_quotes_multiple, STATE 627),
     (sym__string_literal_single_quotes_multiple, STATE 627),
     (sym__raw_string_literal_double_quotes, STATE 627),
     (sym__raw_string_literal_single_quotes, STATE 627),
     (sym__raw_string_literal_double_quotes_multiple, STATE 627),
     (sym__raw_string_literal_single_quotes_multiple, STATE 627), (sym_list_literal, STATE 989),
     (sym_set_or_map_literal, STATE 989), (sym_null_literal, STATE 989),
     (sym_record_literal, STATE 989), (sym__record_literal_no_const, STATE 924),
     (sym_record_field, STATE 3105), (sym__expression, STATE 3064),
     (sym__real_expression, STATE 660), (sym_throw_expression, STATE 908),
     (sym_rethrow_expression, STATE 908), (sym_assignment_expression, STATE 908),
     (sym_assignable_expression, STATE 1940), (sym_function_expression, STATE 962),
     (sym_if_null_expression, STATE 1477), (sym_conditional_expression, STATE 1477),
     (sym_logical_or_expression, STATE 1477), (sym_logical_and_expression, STATE 1477),
     (sym_equality_expression, STATE 1477), (sym_type_cast_expression, STATE 1477),
     (sym_type_test_expression, STATE 1477), (sym_relational_expression, STATE 1477),
     (sym_bitwise_or_expression, STATE 1477), (sym_bitwise_xor_expression, STATE 1477),
     (sym_bitwise_and_expression, STATE 1477), (sym_shift_expression, STATE 1477),
     (sym_additive_expression, STATE 1477), (sym_multiplicative_expression, STATE 1477),
     (sym__unary_expression, STATE 1121), (sym_unary_expression, STATE 1303),
     (sym__postfix_expression, STATE 1303), (sym_postfix_expression, STATE 1301),
     (sym_prefix_operator, STATE 431), (sym_negation_operator, STATE 1450),
     (sym__exclamation_operator, STATE 1451), (sym_tilde_operator, STATE 1385),
     (sym_await_expression, STATE 1302), (sym_new_expression, STATE 962),
     (sym_const_object_expression, STATE 962), (sym__primary, STATE 668),
     (sym_parenthesized_expression, STATE 962), (sym_constructor_invocation, STATE 643),
     (sym_constructor_tearoff, STATE 962), (sym_type_arguments, STATE 3200),
     (sym_switch_expression, STATE 962), (sym__parenthesized_pattern, STATE 3182),
     (sym_list_pattern, STATE 3182), (sym_map_pattern, STATE 3182),
     (sym_record_pattern, STATE 3182), (sym_object_pattern, STATE 3182),
     (sym__outer_pattern, STATE 3410), (sym_pattern_assignment, STATE 908),
     (sym_annotation, STATE 1361), (sym__metadata, STATE 1077),
     (sym_type_parameters, STATE 2932), (sym__declared_identifier, STATE 2468),
     (sym__final_const_var_or_type, STATE 2557), (sym__type, STATE 2756),
     (sym__type_not_function, STATE 1796), (sym__type_not_void_not_function, STATE 1896),
     (sym_function_type, STATE 1848), (aux_sym__function_type_tails, STATE 1605),
     (sym__function_type_tail, STATE 1704), (sym_record_type, STATE 1805),
     (sym__type_name, STATE 2004), (sym__var_or_type, STATE 2755),
     (sym_inferred_type, STATE 1976), (sym__formal_parameter_part, STATE 2339),
     (sym_formal_parameter_list, STATE 2020), (sym__strict_formal_parameter_list, STATE 2016),
     (sym__normal_formal_parameters, STATE 3271), (sym_optional_formal_parameters, STATE 3277),
     (sym__optional_postional_formal_parameters, STATE 3424),
     (sym__named_formal_parameters, STATE 3424), (sym_formal_parameter, STATE 2750),
     (sym__normal_formal_parameter, STATE 2466), (sym__function_formal_parameter, STATE 2465),
     (sym__simple_formal_parameter, STATE 2464), (sym_super_formal_parameter, STATE 2465),
     (sym_constructor_param, STATE 2465), (sym__covariant, STATE 1794),
     (sym__function_builtin_identifier, STATE 1463), (sym__new_builtin, STATE 2079),
     (sym_final_builtin, STATE 1984), (sym__late_builtin, STATE 1915), (sym_this, STATE 1254),
     (sym_super, STATE 1328), (sym_label, STATE 257), (sym_comment, STATE 57),
     (sym_documentation_comment, STATE 57), (aux_sym_string_literal_repeat1, STATE 474),
     (aux_sym__metadata_repeat1, STATE 1308), (sym_identifier, ACTIONS 462),
     (anon_sym_POUND, ACTIONS 73), (sym_decimal_integer_literal, ACTIONS 75),
     (sym_hex_integer_literal, ACTIONS 77), (sym_decimal_floating_point_literal, ACTIONS 75),
     (anon_sym_true, ACTIONS 79), (anon_sym_false, ACTIONS 81), (anon_sym_DQUOTE, ACTIONS 83),
     (anon_sym_SQUOTE, ACTIONS 85), (anon_sym_DQUOTE_DQUOTE_DQUOTE, ACTIONS 87),
     (anon_sym_SQUOTE_SQUOTE_SQUOTE, ACTIONS 89), (anon_sym_r_DQUOTE, ACTIONS 91),
     (anon_sym_r_SQUOTE, ACTIONS 93), (anon_sym_r_DQUOTE_DQUOTE_DQUOTE, ACTIONS 95),
     (anon_sym_r_SQUOTE_SQUOTE_SQUOTE, ACTIONS 97), (anon_sym_LBRACE, ACTIONS 464),
     (anon_sym_LBRACK, ACTIONS 466), (anon_sym_null, ACTIONS 105),
     (anon_sym_LPAREN, ACTIONS 107), (anon_sym_RPAREN, ACTIONS 438),
     (anon_sym_throw, ACTIONS 109), (anon_sym_LT, ACTIONS 111),
     (sym_increment_operator, ACTIONS 113), (sym_minus_operator, ACTIONS 117),
     (anon_sym_BANG, ACTIONS 119), (anon_sym_TILDE, ACTIONS 121), (anon_sym_await, ACTIONS 432),
     (anon_sym_switch, ACTIONS 412), (anon_sym_AT, ACTIONS 143), (anon_sym_final, ACTIONS 145),
     (sym_void_type, ACTIONS 33), (anon_sym_var, ACTIONS 35), (sym_rethrow_builtin, ACTIONS 151),
     (anon_sym_covariant, ACTIONS 153), (anon_sym_Function, ACTIONS 45),
     (anon_sym_new, ACTIONS 155), (sym_const_builtin, ACTIONS 157), (anon_sym_late, ACTIONS 67),
     (anon_sym_this, ACTIONS 159), (anon_sym_super, ACTIONS 161),
     (anon_sym_SLASH_SLASH, ACTIONS 3), (anon_sym_SLASH_STAR, ACTIONS 5),
     (anon_sym_SLASH_SLASH_SLASH, ACTIONS 7), (sym__block_comment, ACTIONS 9),
     (sym__documentation_block_comment, ACTIONS 11)]"

lemma row_ok_57: "table_row_ok 57 ts_parse_table_57"
  by (simp add: row_simps ts_parse_table_57_def)

definition ts_parse_table_58 :: table_row where
  "ts_parse_table_58 = [
     (sym__bool_literal, STATE 989), (sym__numeric_literal, STATE 989),
     (sym__literal, STATE 962), (sym_symbol_literal, STATE 989), (sym_true, STATE 900),
     (sym_false, STATE 900), (sym_string_literal, STATE 989),
     (sym__string_literal_double_quotes, STATE 627),
     (sym__string_literal_single_quotes, STATE 627),
     (sym__string_literal_double_quotes_multiple, STATE 627),
     (sym__string_literal_single_quotes_multiple, STATE 627),
     (sym__raw_string_literal_double_quotes, STATE 627),
     (sym__raw_string_literal_single_quotes, STATE 627),
     (sym__raw_string_literal_double_quotes_multiple, STATE 627),
     (sym__raw_string_literal_single_quotes_multiple, STATE 627), (sym_list_literal, STATE 989),
     (sym_set_or_map_literal, STATE 989), (sym_null_literal, STATE 989),
     (sym_record_literal, STATE 989), (sym__record_literal_no_const, STATE 924),
     (sym_record_field, STATE 3108), (sym__expression, STATE 3111),
     (sym__real_expression, STATE 660), (sym_throw_expression, STATE 908),
     (sym_rethrow_expression, STATE 908), (sym_assignment_expression, STATE 908),
     (sym_assignable_expression, STATE 1940), (sym_function_expression, STATE 962),
     (sym_if_null_expression, STATE 1477), (sym_conditional_expression, STATE 1477),
     (sym_logical_or_expression, STATE 1477), (sym_logical_and_expression, STATE 1477),
     (sym_equality_expression, STATE 1477), (sym_type_cast_expression, STATE 1477),
     (sym_type_test_expression, STATE 1477), (sym_relational_expression, STATE 1477),
     (sym_bitwise_or_expression, STATE 1477), (sym_bitwise_xor_expression, STATE 1477),
     (sym_bitwise_and_expression, STATE 1477), (sym_shift_expression, STATE 1477),
     (sym_additive_expression, STATE 1477), (sym_multiplicative_expression, STATE 1477),
     (sym__unary_expression, STATE 1121), (sym_unary_expression, STATE 1303),
     (sym__postfix_expression, STATE 1303), (sym_postfix_expression, STATE 1301),
     (sym_prefix_operator, STATE 431), (sym_negation_operator, STATE 1450),
     (sym__exclamation_operator, STATE 1451), (sym_tilde_operator, STATE 1385),
     (sym_await_expression, STATE 1302), (sym_new_expression, STATE 962),
     (sym_const_object_expression, STATE 962), (sym__primary, STATE 668),
     (sym_parenthesized_expression, STATE 962), (sym_constructor_invocation, STATE 643),
     (sym_constructor_tearoff, STATE 962), (sym_type_arguments, STATE 3200),
     (sym_switch_expression, STATE 962), (sym__parenthesized_pattern, STATE 3182),
     (sym_list_pattern, STATE 3182), (sym_map_pattern, STATE 3182),
     (sym_record_pattern, STATE 3182), (sym_object_pattern, STATE 3182),
     (sym__outer_pattern, STATE 3410), (sym_pattern_assignment, STATE 908),
     (sym_annotation, STATE 1361), (sym__metadata, STATE 1077),
     (sym_type_parameters, STATE 2932), (sym__declared_identifier, STATE 2468),
     (sym__final_const_var_or_type, STATE 2557), (sym__type, STATE 2756),
     (sym__type_not_function, STATE 1796), (sym__type_not_void_not_function, STATE 1896),
     (sym_function_type, STATE 1848), (aux_sym__function_type_tails, STATE 1605),
     (sym__function_type_tail, STATE 1704), (sym_record_type, STATE 1805),
     (sym__type_name, STATE 2004), (sym__var_or_type, STATE 2755),
     (sym_inferred_type, STATE 1976), (sym__formal_parameter_part, STATE 2339),
     (sym_formal_parameter_list, STATE 2020), (sym__strict_formal_parameter_list, STATE 2016),
     (sym__normal_formal_parameters, STATE 3271), (sym_optional_formal_parameters, STATE 3277),
     (sym__optional_postional_formal_parameters, STATE 3424),
     (sym__named_formal_parameters, STATE 3424), (sym_formal_parameter, STATE 2750),
     (sym__normal_formal_parameter, STATE 2466), (sym__function_formal_parameter, STATE 2465),
     (sym__simple_formal_parameter, STATE 2464), (sym_super_formal_parameter, STATE 2465),
     (sym_constructor_param, STATE 2465), (sym__covariant, STATE 1794),
     (sym__function_builtin_identifier, STATE 1463), (sym__new_builtin, STATE 2079),
     (sym_final_builtin, STATE 1984), (sym__late_builtin, STATE 1915), (sym_this, STATE 1254),
     (sym_super, STATE 1328), (sym_label, STATE 213), (sym_comment, STATE 58),
     (sym_documentation_comment, STATE 58), (aux_sym_string_literal_repeat1, STATE 474),
     (aux_sym__metadata_repeat1, STATE 1308), (sym_identifier, ACTIONS 462),
     (anon_sym_POUND, ACTIONS 73), (sym_decimal_integer_literal, ACTIONS 75),
     (sym_hex_integer_literal, ACTIONS 77), (sym_decimal_floating_point_literal, ACTIONS 75),
     (anon_sym_true, ACTIONS 79), (anon_sym_false, ACTIONS 81), (anon_sym_DQUOTE, ACTIONS 83),
     (anon_sym_SQUOTE, ACTIONS 85), (anon_sym_DQUOTE_DQUOTE_DQUOTE, ACTIONS 87),
     (anon_sym_SQUOTE_SQUOTE_SQUOTE, ACTIONS 89), (anon_sym_r_DQUOTE, ACTIONS 91),
     (anon_sym_r_SQUOTE, ACTIONS 93), (anon_sym_r_DQUOTE_DQUOTE_DQUOTE, ACTIONS 95),
     (anon_sym_r_SQUOTE_SQUOTE_SQUOTE, ACTIONS 97), (anon_sym_LBRACE, ACTIONS 464),
     (anon_sym_LBRACK, ACTIONS 466), (anon_sym_null, ACTIONS 105),
     (anon_sym_LPAREN, ACTIONS 107), (anon_sym_RPAREN, ACTIONS 438),
     (anon_sym_throw, ACTIONS 109), (anon_sym_LT, ACTIONS 111),
     (sym_increment_operator, ACTIONS 113), (sym_minus_operator, ACTIONS 117),
     (anon_sym_BANG, ACTIONS 119), (anon_sym_TILDE, ACTIONS 121), (anon_sym_await, ACTIONS 432),
     (anon_sym_switch, ACTIONS 412), (anon_sym_AT, ACTIONS 143), (anon_sym_final, ACTIONS 145),
     (sym_void_type, ACTIONS 33), (anon_sym_var, ACTIONS 35), (sym_rethrow_builtin, ACTIONS 151),
     (anon_sym_covariant, ACTIONS 153), (anon_sym_Function, ACTIONS 45),
     (anon_sym_new, ACTIONS 155), (sym_const_builtin, ACTIONS 157), (anon_sym_late, ACTIONS 67),
     (anon_sym_this, ACTIONS 159), (anon_sym_super, ACTIONS 161),
     (anon_sym_SLASH_SLASH, ACTIONS 3), (anon_sym_SLASH_STAR, ACTIONS 5),
     (anon_sym_SLASH_SLASH_SLASH, ACTIONS 7), (sym__block_comment, ACTIONS 9),
     (sym__documentation_block_comment, ACTIONS 11)]"

lemma row_ok_58: "table_row_ok 58 ts_parse_table_58"
  by (simp add: row_simps ts_parse_table_58_def)

definition ts_parse_table_59 :: table_row where
  "ts_parse_table_59 = [
     (sym__bool_literal, STATE 989), (sym__numeric_literal, STATE 989),
     (sym__literal, STATE 962), (sym_symbol_literal, STATE 989), (sym_true, STATE 900),
     (sym_false, STATE 900), (sym_string_literal, STATE 989),
     (sym__string_literal_double_quotes, STATE 627),
     (sym__string_literal_single_quotes, STATE 627),
     (sym__string_literal_double_quotes_multiple, STATE 627),
     (sym__string_literal_single_quotes_multiple, STATE 627),
     (sym__raw_string_literal_double_quotes, STATE 627),
     (sym__raw_string_literal_single_quotes, STATE 627),
     (sym__raw_string_literal_double_quotes_multiple, STATE 627),
     (sym__raw_string_literal_single_quotes_multiple, STATE 627), (sym_list_literal, STATE 989),
     (sym_set_or_map_literal, STATE 989), (sym_null_literal, STATE 989),
     (sym_record_literal, STATE 989), (sym__record_literal_no_const, STATE 924),
     (sym_record_field, STATE 3150), (sym__expression, STATE 3169),
     (sym__real_expression, STATE 660), (sym_throw_expression, STATE 908),
     (sym_rethrow_expression, STATE 908), (sym_assignment_expression, STATE 908),
     (sym_assignable_expression, STATE 1940), (sym_function_expression, STATE 962),
     (sym_if_null_expression, STATE 1477), (sym_conditional_expression, STATE 1477),
     (sym_logical_or_expression, STATE 1477), (sym_logical_and_expression, STATE 1477),
     (sym_equality_expression, STATE 1477), (sym_type_cast_expression, STATE 1477),
     (sym_type_test_expression, STATE 1477), (sym_relational_expression, STATE 1477),
     (sym_bitwise_or_expression, STATE 1477), (sym_bitwise_xor_expression, STATE 1477),
     (sym_bitwise_and_expression, STATE 1477), (sym_shift_expression, STATE 1477),
     (sym_additive_expression, STATE 1477), (sym_multiplicative_expression, STATE 1477),
     (sym__unary_expression, STATE 1121), (sym_unary_expression, STATE 1303),
     (sym__postfix_expression, STATE 1303), (sym_postfix_expression, STATE 1301),
     (sym_prefix_operator, STATE 431), (sym_negation_operator, STATE 1450),
     (sym__exclamation_operator, STATE 1451), (sym_tilde_operator, STATE 1385),
     (sym_await_expression, STATE 1302), (sym_new_expression, STATE 962),
     (sym_const_object_expression, STATE 962), (sym__primary, STATE 668),
     (sym_parenthesized_expression, STATE 962), (sym_constructor_invocation, STATE 643),
     (sym_constructor_tearoff, STATE 962), (sym_type_arguments, STATE 3200),
     (sym_switch_expression, STATE 962), (sym__parenthesized_pattern, STATE 3182),
     (sym_list_pattern, STATE 3182), (sym_map_pattern, STATE 3182),
     (sym_record_pattern, STATE 3182), (sym_object_pattern, STATE 3182),
     (sym__outer_pattern, STATE 3410), (sym_pattern_assignment, STATE 908),
     (sym_annotation, STATE 1361), (sym__metadata, STATE 1077),
     (sym_type_parameters, STATE 2932), (sym__declared_identifier, STATE 2468),
     (sym__final_const_var_or_type, STATE 2557), (sym__type, STATE 2756),
     (sym__type_not_function, STATE 1796), (sym__type_not_void_not_function, STATE 1896),
     (sym_function_type, STATE 1848), (aux_sym__function_type_tails, STATE 1605),
     (sym__function_type_tail, STATE 1704), (sym_record_type, STATE 1805),
     (sym__type_name, STATE 2004), (sym__var_or_type, STATE 2755),
     (sym_inferred_type, STATE 1976), (sym__formal_parameter_part, STATE 2339),
     (sym_formal_parameter_list, STATE 2020), (sym__strict_formal_parameter_list, STATE 2016),
     (sym__normal_formal_parameters, STATE 3271), (sym_optional_formal_parameters, STATE 3277),
     (sym__optional_postional_formal_parameters, STATE 3424),
     (sym__named_formal_parameters, STATE 3424), (sym_formal_parameter, STATE 2750),
     (sym__normal_formal_parameter, STATE 2466), (sym__function_formal_parameter, STATE 2465),
     (sym__simple_formal_parameter, STATE 2464), (sym_super_formal_parameter, STATE 2465),
     (sym_constructor_param, STATE 2465), (sym__covariant, STATE 1794),
     (sym__function_builtin_identifier, STATE 1463), (sym__new_builtin, STATE 2079),
     (sym_final_builtin, STATE 1984), (sym__late_builtin, STATE 1915), (sym_this, STATE 1254),
     (sym_super, STATE 1328), (sym_label, STATE 258), (sym_comment, STATE 59),
     (sym_documentation_comment, STATE 59), (aux_sym_string_literal_repeat1, STATE 474),
     (aux_sym__metadata_repeat1, STATE 1308), (sym_identifier, ACTIONS 462),
     (anon_sym_POUND, ACTIONS 73), (sym_decimal_integer_literal, ACTIONS 75),
     (sym_hex_integer_literal, ACTIONS 77), (sym_decimal_floating_point_literal, ACTIONS 75),
     (anon_sym_true, ACTIONS 79), (anon_sym_false, ACTIONS 81), (anon_sym_DQUOTE, ACTIONS 83),
     (anon_sym_SQUOTE, ACTIONS 85), (anon_sym_DQUOTE_DQUOTE_DQUOTE, ACTIONS 87),
     (anon_sym_SQUOTE_SQUOTE_SQUOTE, ACTIONS 89), (anon_sym_r_DQUOTE, ACTIONS 91),
     (anon_sym_r_SQUOTE, ACTIONS 93), (anon_sym_r_DQUOTE_DQUOTE_DQUOTE, ACTIONS 95),
     (anon_sym_r_SQUOTE_SQUOTE_SQUOTE, ACTIONS 97), (anon_sym_LBRACE, ACTIONS 464),
     (anon_sym_LBRACK, ACTIONS 466), (anon_sym_null, ACTIONS 105),
     (anon_sym_LPAREN, ACTIONS 107), (anon_sym_RPAREN, ACTIONS 438),
     (anon_sym_throw, ACTIONS 109), (anon_sym_LT, ACTIONS 111),
     (sym_increment_operator, ACTIONS 113), (sym_minus_operator, ACTIONS 117),
     (anon_sym_BANG, ACTIONS 119), (anon_sym_TILDE, ACTIONS 121), (anon_sym_await, ACTIONS 432),
     (anon_sym_switch, ACTIONS 412), (anon_sym_AT, ACTIONS 143), (anon_sym_final, ACTIONS 145),
     (sym_void_type, ACTIONS 33), (anon_sym_var, ACTIONS 35), (sym_rethrow_builtin, ACTIONS 151),
     (anon_sym_covariant, ACTIONS 153), (anon_sym_Function, ACTIONS 45),
     (anon_sym_new, ACTIONS 155), (sym_const_builtin, ACTIONS 157), (anon_sym_late, ACTIONS 67),
     (anon_sym_this, ACTIONS 159), (anon_sym_super, ACTIONS 161),
     (anon_sym_SLASH_SLASH, ACTIONS 3), (anon_sym_SLASH_STAR, ACTIONS 5),
     (anon_sym_SLASH_SLASH_SLASH, ACTIONS 7), (sym__block_comment, ACTIONS 9),
     (sym__documentation_block_comment, ACTIONS 11)]"

lemma row_ok_59: "table_row_ok 59 ts_parse_table_59"
  by (simp add: row_simps ts_parse_table_59_def)

definition ts_parse_table_60 :: table_row where
  "ts_parse_table_60 = [
     (sym__bool_literal, STATE 989), (sym__numeric_literal, STATE 989),
     (sym__literal, STATE 962), (sym_symbol_literal, STATE 989), (sym_true, STATE 900),
     (sym_false, STATE 900), (sym_string_literal, STATE 989),
     (sym__string_literal_double_quotes, STATE 627),
     (sym__string_literal_single_quotes, STATE 627),
     (sym__string_literal_double_quotes_multiple, STATE 627),
     (sym__string_literal_single_quotes_multiple, STATE 627),
     (sym__raw_string_literal_double_quotes, STATE 627),
     (sym__raw_string_literal_single_quotes, STATE 627),
     (sym__raw_string_literal_double_quotes_multiple, STATE 627),
     (sym__raw_string_literal_single_quotes_multiple, STATE 627), (sym_list_literal, STATE 989),
     (sym_set_or_map_literal, STATE 989), (sym_null_literal, STATE 989),
     (sym_record_literal, STATE 989), (sym__record_literal_no_const, STATE 924),
     (sym_record_field, STATE 3085), (sym__expression, STATE 3188),
     (sym__real_expression, STATE 660), (sym_throw_expression, STATE 908),
     (sym_rethrow_expression, STATE 908), (sym_assignment_expression, STATE 908),
     (sym_assignable_expression, STATE 1940), (sym_function_expression, STATE 962),
     (sym_if_null_expression, STATE 1477), (sym_conditional_expression, STATE 1477),
     (sym_logical_or_expression, STATE 1477), (sym_logical_and_expression, STATE 1477),
     (sym_equality_expression, STATE 1477), (sym_type_cast_expression, STATE 1477),
     (sym_type_test_expression, STATE 1477), (sym_relational_expression, STATE 1477),
     (sym_bitwise_or_expression, STATE 1477), (sym_bitwise_xor_expression, STATE 1477),
     (sym_bitwise_and_expression, STATE 1477), (sym_shift_expression, STATE 1477),
     (sym_additive_expression, STATE 1477), (sym_multiplicative_expression, STATE 1477),
     (sym__unary_expression, STATE 1121), (sym_unary_expression, STATE 1303),
     (sym__postfix_expression, STATE 1303), (sym_postfix_expression, STATE 1301),
     (sym_prefix_operator, STATE 431), (sym_negation_operator, STATE 1450),
     (sym__exclamation_operator, STATE 1451), (sym_tilde_operator, STATE 1385),
     (sym_await_expression, STATE 1302), (sym_new_expression, STATE 962),
     (sym_const_object_expression, STATE 962), (sym__primary, STATE 668),
     (sym_parenthesized_expression, STATE 962), (sym_constructor_invocation, STATE 643),
     (sym_constructor_tearoff, STATE 962), (sym_type_arguments, STATE 3200),
     (sym_switch_expression, STATE 962), (sym__parenthesized_pattern, STATE 3182),
     (sym_list_pattern, STATE 3182), (sym_map_pattern, STATE 3182),
     (sym_record_pattern, STATE 3182), (sym_object_pattern, STATE 3182),
     (sym__outer_pattern, STATE 3410), (sym_pattern_assignment, STATE 908),
     (sym_annotation, STATE 1361), (sym__metadata, STATE 1077),
     (sym_type_parameters, STATE 2932), (sym__declared_identifier, STATE 2468),
     (sym__final_const_var_or_type, STATE 2557), (sym__type, STATE 2756),
     (sym__type_not_function, STATE 1796), (sym__type_not_void_not_function, STATE 1896),
     (sym_function_type, STATE 1848), (aux_sym__function_type_tails, STATE 1605),
     (sym__function_type_tail, STATE 1704), (sym_record_type, STATE 1805),
     (sym__type_name, STATE 2004), (sym__var_or_type, STATE 2755),
     (sym_inferred_type, STATE 1976), (sym__formal_parameter_part, STATE 2339),
     (sym_formal_parameter_list, STATE 2020), (sym__strict_formal_parameter_list, STATE 2016),
     (sym__normal_formal_parameters, STATE 3271), (sym_optional_formal_parameters, STATE 3277),
     (sym__optional_postional_formal_parameters, STATE 3424),
     (sym__named_formal_parameters, STATE 3424), (sym_formal_parameter, STATE 2750),
     (sym__normal_formal_parameter, STATE 2466), (sym__function_formal_parameter, STATE 2465),
     (sym__simple_formal_parameter, STATE 2464), (sym_super_formal_parameter, STATE 2465),
     (sym_constructor_param, STATE 2465), (sym__covariant, STATE 1794),
     (sym__function_builtin_identifier, STATE 1463), (sym__new_builtin, STATE 2079),
     (sym_final_builtin, STATE 1984), (sym__late_builtin, STATE 1915), (sym_this, STATE 1254),
     (sym_super, STATE 1328), (sym_label, STATE 238), (sym_comment, STATE 60),
     (sym_documentation_comment, STATE 60), (aux_sym_string_literal_repeat1, STATE 474),
     (aux_sym__metadata_repeat1, STATE 1308), (sym_identifier, ACTIONS 462),
     (anon_sym_POUND, ACTIONS 73), (sym_decimal_integer_literal, ACTIONS 75),
     (sym_hex_integer_literal, ACTIONS 77), (sym_decimal_floating_point_literal, ACTIONS 75),
     (anon_sym_true, ACTIONS 79), (anon_sym_false, ACTIONS 81), (anon_sym_DQUOTE, ACTIONS 83),
     (anon_sym_SQUOTE, ACTIONS 85), (anon_sym_DQUOTE_DQUOTE_DQUOTE, ACTIONS 87),
     (anon_sym_SQUOTE_SQUOTE_SQUOTE, ACTIONS 89), (anon_sym_r_DQUOTE, ACTIONS 91),
     (anon_sym_r_SQUOTE, ACTIONS 93), (anon_sym_r_DQUOTE_DQUOTE_DQUOTE, ACTIONS 95),
     (anon_sym_r_SQUOTE_SQUOTE_SQUOTE, ACTIONS 97), (anon_sym_LBRACE, ACTIONS 464),
     (anon_sym_LBRACK, ACTIONS 466), (anon_sym_null, ACTIONS 105),
     (anon_sym_LPAREN, ACTIONS 107), (anon_sym_RPAREN, ACTIONS 438),
     (anon_sym_throw, ACTIONS 109), (anon_sym_LT, ACTIONS 111),
     (sym_increment_operator, ACTIONS 113), (sym_minus_operator, ACTIONS 117),
     (anon_sym_BANG, ACTIONS 119), (anon_sym_TILDE, ACTIONS 121), (anon_sym_await, ACTIONS 432),
     (anon_sym_switch, ACTIONS 412), (anon_sym_AT, ACTIONS 143), (anon_sym_final, ACTIONS 145),
     (sym_void_type, ACTIONS 33), (anon_sym_var, ACTIONS 35), (sym_rethrow_builtin, ACTIONS 151),
     (anon_sym_covariant, ACTIONS 153), (anon_sym_Function, ACTIONS 45),
     (anon_sym_new, ACTIONS 155), (sym_const_builtin, ACTIONS 157), (anon_sym_late, ACTIONS 67),
     (anon_sym_this, ACTIONS 159), (anon_sym_super, ACTIONS 161),
     (anon_sym_SLASH_SLASH, ACTIONS 3), (anon_sym_SLASH_STAR, ACTIONS 5),
     (anon_sym_SLASH_SLASH_SLASH, ACTIONS 7), (sym__block_comment, ACTIONS 9),
     (sym__documentation_block_comment, ACTIONS 11)]"

lemma row_ok_60: "table_row_ok 60 ts_parse_table_60"
  by (simp add: row_simps ts_parse_table_60_def)

definition ts_parse_table_61 :: table_row where
  "ts_parse_table_61 = [
     (sym__bool_literal, STATE 1245), (sym__numeric_literal, STATE 1245),
     (sym__literal, STATE 962), (sym_symbol_literal, STATE 1245), (sym_true, STATE 900),
     (sym_false, STATE 900), (sym_string_literal, STATE 1245),
     (sym__string_literal_double_quotes, STATE 627),
     (sym__string_literal_single_quotes, STATE 627),
     (sym__string_literal_double_quotes_multiple, STATE 627),
     (sym__string_literal_single_quotes_multiple, STATE 627),
     (sym__raw_string_literal_double_quotes, STATE 627),
     (sym__raw_string_literal_single_quotes, STATE 627),
     (sym__raw_string_literal_double_quotes_multiple, STATE 627),
     (sym__raw_string_literal_single_quotes_multiple, STATE 627), (sym_list_literal, STATE 989),
     (sym_set_or_map_literal, STATE 989), (sym_null_literal, STATE 1245),
     (sym_record_literal, STATE 989), (sym__record_literal_no_const, STATE 924),
     (sym__expression, STATE 2601), (sym__real_expression, STATE 660),
     (sym_throw_expression, STATE 908), (sym_rethrow_expression, STATE 908),
     (sym_assignment_expression, STATE 908), (sym_assignable_expression, STATE 1940),
     (sym_function_expression, STATE 962), (sym_if_null_expression, STATE 1477),
     (sym_conditional_expression, STATE 1477), (sym_logical_or_expression, STATE 1477),
     (sym_logical_and_expression, STATE 1477), (sym_equality_expression, STATE 1477),
     (sym_type_cast_expression, STATE 1477), (sym_type_test_expression, STATE 1477),
     (sym_relational_expression, STATE 1477), (sym_relational_operator, STATE 345),
     (sym_bitwise_or_expression, STATE 1477), (sym_bitwise_xor_expression, STATE 1477),
     (sym_bitwise_and_expression, STATE 1477), (sym_shift_expression, STATE 1477),
     (sym_additive_expression, STATE 1477), (sym_multiplicative_expression, STATE 1477),
     (sym__unary_expression, STATE 1121), (sym_unary_expression, STATE 1303),
     (sym__postfix_expression, STATE 1303), (sym_postfix_expression, STATE 1301),
     (sym_prefix_operator, STATE 431), (sym_negation_operator, STATE 1450),
     (sym__exclamation_operator, STATE 1451), (sym_tilde_operator, STATE 1385),
     (sym_await_expression, STATE 1302), (sym_new_expression, STATE 962),
     (sym_const_object_expression, STATE 1249), (sym__primary, STATE 668),
     (sym_parenthesized_expression, STATE 962), (sym_constructor_invocation, STATE 643),
     (sym_constructor_tearoff, STATE 962), (sym_type_arguments, STATE 3161),
     (sym_switch_expression, STATE 962), (sym__pattern, STATE 3168),
     (sym__logical_or_pattern, STATE 2373), (sym__logical_and_pattern, STATE 2152),
     (sym__relational_pattern, STATE 2147), (sym__unary_pattern, STATE 2230),
     (sym__primary_pattern, STATE 2129), (sym_cast_pattern, STATE 2231),
     (sym_null_check_pattern, STATE 2231), (sym_null_assert_pattern, STATE 2231),
     (sym_constant_pattern, STATE 2102), (sym_variable_pattern, STATE 2102),
     (sym__parenthesized_pattern, STATE 2158), (sym_list_pattern, STATE 2158),
     (sym_map_pattern, STATE 2158), (sym_record_pattern, STATE 2158),
     (sym_object_pattern, STATE 2158), (sym__outer_pattern, STATE 3410),
     (sym_pattern_assignment, STATE 908), (sym_type_parameters, STATE 2932),
     (sym__type, STATE 3547), (sym__type_not_function, STATE 1796),
     (sym__type_not_void_not_function, STATE 1896), (sym_function_type, STATE 1848),
     (aux_sym__function_type_tails, STATE 1605), (sym__function_type_tail, STATE 1704),
     (sym_record_type, STATE 1805), (sym__type_name, STATE 2126),
     (sym__final_var_or_type, STATE 3469), (sym_inferred_type, STATE 3547),
     (sym__formal_parameter_part, STATE 2339), (sym_formal_parameter_list, STATE 2020),
     (sym__strict_formal_parameter_list, STATE 2016), (sym_qualified, STATE 2124),
     (sym__function_builtin_identifier, STATE 1463), (sym__new_builtin, STATE 2079),
     (sym_final_builtin, STATE 2100), (sym_this, STATE 962), (sym_super, STATE 1337),
     (sym_comment, STATE 61), (sym_documentation_comment, STATE 61),
     (aux_sym_string_literal_repeat1, STATE 474), (sym_identifier, ACTIONS 450),
     (anon_sym_POUND, ACTIONS 73), (sym_decimal_integer_literal, ACTIONS 75),
     (sym_hex_integer_literal, ACTIONS 77), (sym_decimal_floating_point_literal, ACTIONS 75),
     (anon_sym_true, ACTIONS 79), (anon_sym_false, ACTIONS 81), (anon_sym_DQUOTE, ACTIONS 83),
     (anon_sym_SQUOTE, ACTIONS 85), (anon_sym_DQUOTE_DQUOTE_DQUOTE, ACTIONS 87),
     (anon_sym_SQUOTE_SQUOTE_SQUOTE, ACTIONS 89), (anon_sym_r_DQUOTE, ACTIONS 91),
     (anon_sym_r_SQUOTE, ACTIONS 93), (anon_sym_r_DQUOTE_DQUOTE_DQUOTE, ACTIONS 95),
     (anon_sym_r_SQUOTE_SQUOTE_SQUOTE, ACTIONS 97), (anon_sym_LBRACE, ACTIONS 390),
     (anon_sym_LBRACK, ACTIONS 392), (anon_sym_COMMA, ACTIONS 468),
     (anon_sym_RBRACK, ACTIONS 468), (anon_sym_null, ACTIONS 105),
     (anon_sym_LPAREN, ACTIONS 107), (anon_sym_throw, ACTIONS 109),
     (anon_sym_QMARK, ACTIONS 470), (sym_equality_operator, ACTIONS 396),
     (anon_sym_LT, ACTIONS 398), (anon_sym_GT, ACTIONS 400), (anon_sym_LT_EQ, ACTIONS 402),
     (anon_sym_GT_EQ, ACTIONS 402), (sym_increment_operator, ACTIONS 113),
     (sym_minus_operator, ACTIONS 406), (anon_sym_BANG, ACTIONS 408),
     (anon_sym_TILDE, ACTIONS 121), (anon_sym_await, ACTIONS 432),
     (anon_sym_switch, ACTIONS 412), (anon_sym_final, ACTIONS 145), (sym_void_type, ACTIONS 33),
     (anon_sym_var, ACTIONS 35), (sym_rethrow_builtin, ACTIONS 151),
     (anon_sym_Function, ACTIONS 45), (anon_sym_new, ACTIONS 155),
     (sym_const_builtin, ACTIONS 454), (anon_sym_this, ACTIONS 159),
     (anon_sym_super, ACTIONS 161), (anon_sym_SLASH_SLASH, ACTIONS 3),
     (anon_sym_SLASH_STAR, ACTIONS 5), (anon_sym_SLASH_SLASH_SLASH, ACTIONS 7),
     (sym__block_comment, ACTIONS 9), (sym__documentation_block_comment, ACTIONS 11)]"

lemma row_ok_61: "table_row_ok 61 ts_parse_table_61"
  by (simp add: row_simps ts_parse_table_61_def)

definition ts_parse_table_62 :: table_row where
  "ts_parse_table_62 = [
     (sym__bool_literal, STATE 1245), (sym__numeric_literal, STATE 1245),
     (sym__literal, STATE 962), (sym_symbol_literal, STATE 1245), (sym_true, STATE 900),
     (sym_false, STATE 900), (sym_string_literal, STATE 1245),
     (sym__string_literal_double_quotes, STATE 627),
     (sym__string_literal_single_quotes, STATE 627),
     (sym__string_literal_double_quotes_multiple, STATE 627),
     (sym__string_literal_single_quotes_multiple, STATE 627),
     (sym__raw_string_literal_double_quotes, STATE 627),
     (sym__raw_string_literal_single_quotes, STATE 627),
     (sym__raw_string_literal_double_quotes_multiple, STATE 627),
     (sym__raw_string_literal_single_quotes_multiple, STATE 627), (sym_list_literal, STATE 989),
     (sym_set_or_map_literal, STATE 989), (sym_null_literal, STATE 1245),
     (sym_record_literal, STATE 989), (sym__record_literal_no_const, STATE 924),
     (sym__expression, STATE 2606), (sym__real_expression, STATE 660),
     (sym_throw_expression, STATE 908), (sym_rethrow_expression, STATE 908),
     (sym_assignment_expression, STATE 908), (sym_assignable_expression, STATE 1940),
     (sym_function_expression, STATE 962), (sym_if_null_expression, STATE 1477),
     (sym_conditional_expression, STATE 1477), (sym_logical_or_expression, STATE 1477),
     (sym_logical_and_expression, STATE 1477), (sym_equality_expression, STATE 1477),
     (sym_type_cast_expression, STATE 1477), (sym_type_test_expression, STATE 1477),
     (sym_relational_expression, STATE 1477), (sym_relational_operator, STATE 345),
     (sym_bitwise_or_expression, STATE 1477), (sym_bitwise_xor_expression, STATE 1477),
     (sym_bitwise_and_expression, STATE 1477), (sym_shift_expression, STATE 1477),
     (sym_additive_expression, STATE 1477), (sym_multiplicative_expression, STATE 1477),
     (sym__unary_expression, STATE 1121), (sym_unary_expression, STATE 1303),
     (sym__postfix_expression, STATE 1303), (sym_postfix_expression, STATE 1301),
     (sym_prefix_operator, STATE 431), (sym_negation_operator, STATE 1450),
     (sym__exclamation_operator, STATE 1451), (sym_tilde_operator, STATE 1385),
     (sym_await_expression, STATE 1302), (sym_new_expression, STATE 962),
     (sym_const_object_expression, STATE 1249), (sym__primary, STATE 668),
     (sym_parenthesized_expression, STATE 962), (sym_constructor_invocation, STATE 643),
     (sym_constructor_tearoff, STATE 962), (sym_type_arguments, STATE 3161),
     (sym_switch_expression, STATE 962), (sym__pattern, STATE 3191),
     (sym__logical_or_pattern, STATE 2373), (sym__logical_and_pattern, STATE 2152),
     (sym__relational_pattern, STATE 2147), (sym__unary_pattern, STATE 2230),
     (sym__primary_pattern, STATE 2129), (sym_cast_pattern, STATE 2231),
     (sym_null_check_pattern, STATE 2231), (sym_null_assert_pattern, STATE 2231),
     (sym_constant_pattern, STATE 2102), (sym_variable_pattern, STATE 2102),
     (sym__parenthesized_pattern, STATE 2158), (sym_list_pattern, STATE 2158),
     (sym_map_pattern, STATE 2158), (sym_record_pattern, STATE 2158),
     (sym_object_pattern, STATE 2158), (sym__outer_pattern, STATE 3410),
     (sym_pattern_assignment, STATE 908), (sym_type_parameters, STATE 2932),
     (sym__type, STATE 3547), (sym__type_not_function, STATE 1796),
     (sym__type_not_void_not_function, STATE 1896), (sym_function_type, STATE 1848),
     (aux_sym__function_type_tails, STATE 1605), (sym__function_type_tail, STATE 1704),
     (sym_record_type, STATE 1805), (sym__type_name, STATE 2126),
     (sym__final_var_or_type, STATE 3469), (sym_inferred_type, STATE 3547),
     (sym__formal_parameter_part, STATE 2339), (sym_formal_parameter_list, STATE 2020),
     (sym__strict_formal_parameter_list, STATE 2016), (sym_qualified, STATE 2124),
     (sym__function_builtin_identifier, STATE 1463), (sym__new_builtin, STATE 2079),
     (sym_final_builtin, STATE 2100), (sym_this, STATE 962), (sym_super, STATE 1337),
     (sym_comment, STATE 62), (sym_documentation_comment, STATE 62),
     (aux_sym_string_literal_repeat1, STATE 474), (sym_identifier, ACTIONS 450),
     (anon_sym_POUND, ACTIONS 73), (sym_decimal_integer_literal, ACTIONS 75),
     (sym_hex_integer_literal, ACTIONS 77), (sym_decimal_floating_point_literal, ACTIONS 75),
     (anon_sym_true, ACTIONS 79), (anon_sym_false, ACTIONS 81), (anon_sym_DQUOTE, ACTIONS 83),
     (anon_sym_SQUOTE, ACTIONS 85), (anon_sym_DQUOTE_DQUOTE_DQUOTE, ACTIONS 87),
     (anon_sym_SQUOTE_SQUOTE_SQUOTE, ACTIONS 89), (anon_sym_r_DQUOTE, ACTIONS 91),
     (anon_sym_r_SQUOTE, ACTIONS 93), (anon_sym_r_DQUOTE_DQUOTE_DQUOTE, ACTIONS 95),
     (anon_sym_r_SQUOTE_SQUOTE_SQUOTE, ACTIONS 97), (anon_sym_LBRACE, ACTIONS 390),
     (anon_sym_LBRACK, ACTIONS 392), (anon_sym_null, ACTIONS 105),
     (anon_sym_LPAREN, ACTIONS 107), (anon_sym_throw, ACTIONS 109),
     (sym_equality_operator, ACTIONS 396), (anon_sym_LT, ACTIONS 398),
     (anon_sym_GT, ACTIONS 400), (anon_sym_LT_EQ, ACTIONS 402), (anon_sym_GT_EQ, ACTIONS 402),
     (sym_increment_operator, ACTIONS 113), (sym_minus_operator, ACTIONS 406),
     (anon_sym_BANG, ACTIONS 408), (anon_sym_TILDE, ACTIONS 121), (anon_sym_await, ACTIONS 432),
     (anon_sym_switch, ACTIONS 412), (anon_sym_final, ACTIONS 145), (sym_void_type, ACTIONS 33),
     (anon_sym_var, ACTIONS 35), (sym_rethrow_builtin, ACTIONS 151),
     (anon_sym_Function, ACTIONS 45), (anon_sym_new, ACTIONS 155),
     (sym_const_builtin, ACTIONS 454), (anon_sym_this, ACTIONS 159),
     (anon_sym_super, ACTIONS 161), (anon_sym_SLASH_SLASH, ACTIONS 3),
     (anon_sym_SLASH_STAR, ACTIONS 5), (anon_sym_SLASH_SLASH_SLASH, ACTIONS 7),
     (sym__block_comment, ACTIONS 9), (sym__documentation_block_comment, ACTIONS 11)]"

lemma row_ok_62: "table_row_ok 62 ts_parse_table_62"
  by (simp add: row_simps ts_parse_table_62_def)

definition ts_parse_table_63 :: table_row where
  "ts_parse_table_63 = [
     (sym__bool_literal, STATE 989), (sym__numeric_literal, STATE 989),
     (sym__literal, STATE 962), (sym_symbol_literal, STATE 989), (sym_true, STATE 900),
     (sym_false, STATE 900), (sym_string_literal, STATE 989),
     (sym__string_literal_double_quotes, STATE 627),
     (sym__string_literal_single_quotes, STATE 627),
     (sym__string_literal_double_quotes_multiple, STATE 627),
     (sym__string_literal_single_quotes_multiple, STATE 627),
     (sym__raw_string_literal_double_quotes, STATE 627),
     (sym__raw_string_literal_single_quotes, STATE 627),
     (sym__raw_string_literal_double_quotes_multiple, STATE 627),
     (sym__raw_string_literal_single_quotes_multiple, STATE 627), (sym_list_literal, STATE 989),
     (sym_set_or_map_literal, STATE 989), (sym_null_literal, STATE 989),
     (sym_record_literal, STATE 989), (sym__record_literal_no_const, STATE 924),
     (sym__expression, STATE 2624), (sym__real_expression, STATE 660),
     (sym_throw_expression, STATE 908), (sym_rethrow_expression, STATE 908),
     (sym_assignment_expression, STATE 908), (sym_assignable_expression, STATE 1940),
     (sym_function_expression, STATE 962), (sym_if_null_expression, STATE 1477),
     (sym_conditional_expression, STATE 1477), (sym_logical_or_expression, STATE 1477),
     (sym_logical_and_expression, STATE 1477), (sym_equality_expression, STATE 1477),
     (sym_type_cast_expression, STATE 1477), (sym_type_test_expression, STATE 1477),
     (sym_relational_expression, STATE 1477), (sym_bitwise_or_expression, STATE 1477),
     (sym_bitwise_xor_expression, STATE 1477), (sym_bitwise_and_expression, STATE 1477),
     (sym_shift_expression, STATE 1477), (sym_additive_expression, STATE 1477),
     (sym_multiplicative_expression, STATE 1477), (sym__unary_expression, STATE 1121),
     (sym_unary_expression, STATE 1303), (sym__postfix_expression, STATE 1303),
     (sym_postfix_expression, STATE 1301), (sym_prefix_operator, STATE 431),
     (sym_negation_operator, STATE 1450), (sym__exclamation_operator, STATE 1451),
     (sym_tilde_operator, STATE 1385), (sym_await_expression, STATE 1302),
     (sym_new_expression, STATE 962), (sym_const_object_expression, STATE 962),
     (sym__primary, STATE 668), (sym_parenthesized_expression, STATE 962),
     (sym_constructor_invocation, STATE 643), (sym_constructor_tearoff, STATE 962),
     (sym_type_arguments, STATE 3200), (sym_switch_expression, STATE 962),
     (sym__parenthesized_pattern, STATE 3182), (sym_list_pattern, STATE 3182),
     (sym_map_pattern, STATE 3182), (sym_record_pattern, STATE 3182),
     (sym_object_pattern, STATE 3182), (sym_pattern_variable_declaration, STATE 3176),
     (sym__outer_pattern, STATE 3410), (sym_pattern_assignment, STATE 908),
     (sym__for_loop_parts, STATE 3510), (sym_annotation, STATE 1361),
     (sym__metadata, STATE 1388), (sym_type_parameters, STATE 2932),
     (sym_initialized_variable_definition, STATE 3176), (sym__declared_identifier, STATE 2561),
     (sym__final_const_var_or_type, STATE 3411), (sym__type, STATE 2943),
     (sym__type_not_function, STATE 1796), (sym__type_not_void_not_function, STATE 1896),
     (sym_function_type, STATE 1848), (aux_sym__function_type_tails, STATE 1605),
     (sym__function_type_tail, STATE 1704), (sym_record_type, STATE 1805),
     (sym__type_name, STATE 2004), (sym__var_or_type, STATE 2755),
     (sym_inferred_type, STATE 1727), (sym__formal_parameter_part, STATE 2339),
     (sym_formal_parameter_list, STATE 2020), (sym__strict_formal_parameter_list, STATE 2016),
     (sym_local_variable_declaration, STATE 187), (sym__covariant, STATE 1795),
     (sym__function_builtin_identifier, STATE 1463), (sym__new_builtin, STATE 2079),
     (sym_final_builtin, STATE 1759), (sym__late_builtin, STATE 1915), (sym_this, STATE 962),
     (sym_super, STATE 1337), (sym__semicolon, STATE 181), (sym_comment, STATE 63),
     (sym_documentation_comment, STATE 63), (aux_sym_string_literal_repeat1, STATE 474),
     (aux_sym__metadata_repeat1, STATE 1308), (sym_identifier, ACTIONS 472),
     (anon_sym_POUND, ACTIONS 73), (sym_decimal_integer_literal, ACTIONS 75),
     (sym_hex_integer_literal, ACTIONS 77), (sym_decimal_floating_point_literal, ACTIONS 75),
     (anon_sym_true, ACTIONS 79), (anon_sym_false, ACTIONS 81), (anon_sym_DQUOTE, ACTIONS 83),
     (anon_sym_SQUOTE, ACTIONS 85), (anon_sym_DQUOTE_DQUOTE_DQUOTE, ACTIONS 87),
     (anon_sym_SQUOTE_SQUOTE_SQUOTE, ACTIONS 89), (anon_sym_r_DQUOTE, ACTIONS 91),
     (anon_sym_r_SQUOTE, ACTIONS 93), (anon_sym_r_DQUOTE_DQUOTE_DQUOTE, ACTIONS 95),
     (anon_sym_r_SQUOTE_SQUOTE_SQUOTE, ACTIONS 97), (anon_sym_LBRACE, ACTIONS 442),
     (anon_sym_LBRACK, ACTIONS 103), (anon_sym_null, ACTIONS 105),
     (anon_sym_LPAREN, ACTIONS 107), (anon_sym_throw, ACTIONS 109), (anon_sym_LT, ACTIONS 111),
     (sym_increment_operator, ACTIONS 113), (sym_minus_operator, ACTIONS 117),
     (anon_sym_BANG, ACTIONS 119), (anon_sym_TILDE, ACTIONS 121), (anon_sym_await, ACTIONS 432),
     (anon_sym_SEMI, ACTIONS 474), (anon_sym_switch, ACTIONS 412), (anon_sym_AT, ACTIONS 143),
     (anon_sym_final, ACTIONS 145), (sym_void_type, ACTIONS 33), (anon_sym_var, ACTIONS 35),
     (sym_rethrow_builtin, ACTIONS 151), (anon_sym_covariant, ACTIONS 153),
     (anon_sym_Function, ACTIONS 45), (anon_sym_new, ACTIONS 155),
     (sym_const_builtin, ACTIONS 157), (anon_sym_late, ACTIONS 67), (anon_sym_this, ACTIONS 159),
     (anon_sym_super, ACTIONS 161), (anon_sym_SLASH_SLASH, ACTIONS 3),
     (anon_sym_SLASH_STAR, ACTIONS 5), (anon_sym_SLASH_SLASH_SLASH, ACTIONS 7),
     (sym__block_comment, ACTIONS 9), (sym__documentation_block_comment, ACTIONS 11)]"

lemma row_ok_63: "table_row_ok 63 ts_parse_table_63"
  by (simp add: row_simps ts_parse_table_63_def)

definition ts_parse_table_64 :: table_row where
  "ts_parse_table_64 = [
     (sym__bool_literal, STATE 989), (sym__numeric_literal, STATE 989),
     (sym__literal, STATE 962), (sym_symbol_literal, STATE 989), (sym_true, STATE 900),
     (sym_false, STATE 900), (sym_string_literal, STATE 989),
     (sym__string_literal_double_quotes, STATE 627),
     (sym__string_literal_single_quotes, STATE 627),
     (sym__string_literal_double_quotes_multiple, STATE 627),
     (sym__string_literal_single_quotes_multiple, STATE 627),
     (sym__raw_string_literal_double_quotes, STATE 627),
     (sym__raw_string_literal_single_quotes, STATE 627),
     (sym__raw_string_literal_double_quotes_multiple, STATE 627),
     (sym__raw_string_literal_single_quotes_multiple, STATE 627), (sym_list_literal, STATE 989),
     (sym_set_or_map_literal, STATE 989), (sym_pair, STATE 2660), (sym__element, STATE 2817),
     (sym_null_literal, STATE 989), (sym_record_literal, STATE 989),
     (sym__record_literal_no_const, STATE 924), (sym__expression, STATE 2688),
     (sym__real_expression, STATE 660), (sym_throw_expression, STATE 908),
     (sym_rethrow_expression, STATE 908), (sym_assignment_expression, STATE 908),
     (sym_assignable_expression, STATE 1940), (sym_function_expression, STATE 962),
     (sym_if_null_expression, STATE 1477), (sym_conditional_expression, STATE 1477),
     (sym_logical_or_expression, STATE 1477), (sym_logical_and_expression, STATE 1477),
     (sym_equality_expression, STATE 1477), (sym_type_cast_expression, STATE 1477),
     (sym_type_test_expression, STATE 1477), (sym_relational_expression, STATE 1477),
     (sym_bitwise_or_expression, STATE 1477), (sym_bitwise_xor_expression, STATE 1477),
     (sym_bitwise_and_expression, STATE 1477), (sym_shift_expression, STATE 1477),
     (sym_additive_expression, STATE 1477), (sym_multiplicative_expression, STATE 1477),
     (sym__unary_expression, STATE 1121), (sym_unary_expression, STATE 1303),
     (sym__postfix_expression, STATE 1303), (sym_postfix_expression, STATE 1301),
     (sym_spread_element, STATE 2660), (sym_prefix_operator, STATE 431),
     (sym_negation_operator, STATE 1450), (sym__exclamation_operator, STATE 1451),
     (sym_tilde_operator, STATE 1385), (sym_await_expression, STATE 1302),
     (sym_new_expression, STATE 962), (sym_const_object_expression, STATE 962),
     (sym__primary, STATE 668), (sym_parenthesized_expression, STATE 962),
     (sym_constructor_invocation, STATE 643), (sym_constructor_tearoff, STATE 962),
     (sym_type_arguments, STATE 3200), (sym_switch_expression, STATE 962),
     (sym__parenthesized_pattern, STATE 3182), (sym_list_pattern, STATE 3182),
     (sym_map_pattern, STATE 3182), (sym__map_pattern_entry, STATE 2798),
     (sym_record_pattern, STATE 3182), (sym_object_pattern, STATE 3182),
     (sym__outer_pattern, STATE 3410), (sym_pattern_assignment, STATE 908),
     (sym_if_element, STATE 2660), (sym_for_element, STATE 2660), (sym_annotation, STATE 1361),
     (sym__metadata, STATE 2043), (sym_type_parameters, STATE 2932), (sym__type, STATE 3495),
     (sym__type_not_function, STATE 1796), (sym__type_not_void_not_function, STATE 1896),
     (sym_function_type, STATE 1848), (aux_sym__function_type_tails, STATE 1605),
     (sym__function_type_tail, STATE 1704), (sym_record_type, STATE 1805),
     (sym_record_type_named_field, STATE 2804), (sym__type_name, STATE 2004),
     (sym_typed_identifier, STATE 3101), (sym__formal_parameter_part, STATE 2339),
     (sym_formal_parameter_list, STATE 2020), (sym__strict_formal_parameter_list, STATE 2016),
     (sym__function_builtin_identifier, STATE 1463), (sym__new_builtin, STATE 2079),
     (sym_this, STATE 962), (sym_super, STATE 1337), (sym_comment, STATE 64),
     (sym_documentation_comment, STATE 64), (aux_sym_string_literal_repeat1, STATE 474),
     (aux_sym__metadata_repeat1, STATE 1308), (sym_identifier, ACTIONS 476),
     (anon_sym_POUND, ACTIONS 73), (sym_decimal_integer_literal, ACTIONS 75),
     (sym_hex_integer_literal, ACTIONS 77), (sym_decimal_floating_point_literal, ACTIONS 75),
     (anon_sym_true, ACTIONS 79), (anon_sym_false, ACTIONS 81), (anon_sym_DQUOTE, ACTIONS 83),
     (anon_sym_SQUOTE, ACTIONS 85), (anon_sym_DQUOTE_DQUOTE_DQUOTE, ACTIONS 87),
     (anon_sym_SQUOTE_SQUOTE_SQUOTE, ACTIONS 89), (anon_sym_r_DQUOTE, ACTIONS 91),
     (anon_sym_r_SQUOTE, ACTIONS 93), (anon_sym_r_DQUOTE_DQUOTE_DQUOTE, ACTIONS 95),
     (anon_sym_r_SQUOTE_SQUOTE_SQUOTE, ACTIONS 97), (anon_sym_LBRACE, ACTIONS 442),
     (anon_sym_RBRACE, ACTIONS 448), (anon_sym_LBRACK, ACTIONS 103),
     (anon_sym_null, ACTIONS 105), (anon_sym_LPAREN, ACTIONS 107), (anon_sym_throw, ACTIONS 109),
     (anon_sym_LT, ACTIONS 111), (sym_increment_operator, ACTIONS 113),
     (anon_sym_DOT_DOT_DOT, ACTIONS 115), (sym_minus_operator, ACTIONS 117),
     (anon_sym_BANG, ACTIONS 119), (anon_sym_TILDE, ACTIONS 121), (anon_sym_await, ACTIONS 410),
     (anon_sym_switch, ACTIONS 412), (anon_sym_if, ACTIONS 414), (anon_sym_for, ACTIONS 416),
     (anon_sym_AT, ACTIONS 143), (sym_void_type, ACTIONS 33), (sym_rethrow_builtin, ACTIONS 151),
     (anon_sym_Function, ACTIONS 45), (anon_sym_new, ACTIONS 155),
     (sym_const_builtin, ACTIONS 478), (anon_sym_this, ACTIONS 159),
     (anon_sym_super, ACTIONS 161), (anon_sym_SLASH_SLASH, ACTIONS 3),
     (anon_sym_SLASH_STAR, ACTIONS 5), (anon_sym_SLASH_SLASH_SLASH, ACTIONS 7),
     (sym__block_comment, ACTIONS 9), (sym__documentation_block_comment, ACTIONS 11)]"

lemma row_ok_64: "table_row_ok 64 ts_parse_table_64"
  by (simp add: row_simps ts_parse_table_64_def)

definition ts_parse_table_65 :: table_row where
  "ts_parse_table_65 = [
     (sym__bool_literal, STATE 989), (sym__numeric_literal, STATE 989),
     (sym__literal, STATE 962), (sym_symbol_literal, STATE 989), (sym_true, STATE 900),
     (sym_false, STATE 900), (sym_string_literal, STATE 989),
     (sym__string_literal_double_quotes, STATE 627),
     (sym__string_literal_single_quotes, STATE 627),
     (sym__string_literal_double_quotes_multiple, STATE 627),
     (sym__string_literal_single_quotes_multiple, STATE 627),
     (sym__raw_string_literal_double_quotes, STATE 627),
     (sym__raw_string_literal_single_quotes, STATE 627),
     (sym__raw_string_literal_double_quotes_multiple, STATE 627),
     (sym__raw_string_literal_single_quotes_multiple, STATE 627), (sym_list_literal, STATE 989),
     (sym_set_or_map_literal, STATE 989), (sym_null_literal, STATE 989),
     (sym_record_literal, STATE 989), (sym__record_literal_no_const, STATE 924),
     (sym__expression, STATE 3558), (sym__real_expression, STATE 660),
     (sym_throw_expression, STATE 908), (sym_rethrow_expression, STATE 908),
     (sym_assignment_expression, STATE 908), (sym_assignable_expression, STATE 1940),
     (sym_function_expression, STATE 962), (sym_if_null_expression, STATE 1477),
     (sym_conditional_expression, STATE 1477), (sym_logical_or_expression, STATE 1477),
     (sym_logical_and_expression, STATE 1477), (sym_equality_expression, STATE 1477),
     (sym_type_cast_expression, STATE 1477), (sym_type_test_expression, STATE 1477),
     (sym_relational_expression, STATE 1477), (sym_bitwise_or_expression, STATE 1477),
     (sym_bitwise_xor_expression, STATE 1477), (sym_bitwise_and_expression, STATE 1477),
     (sym_shift_expression, STATE 1477), (sym_additive_expression, STATE 1477),
     (sym_multiplicative_expression, STATE 1477), (sym__unary_expression, STATE 1121),
     (sym_unary_expression, STATE 1303), (sym__postfix_expression, STATE 1303),
     (sym_postfix_expression, STATE 1301), (sym_prefix_operator, STATE 431),
     (sym_negation_operator, STATE 1450), (sym__exclamation_operator, STATE 1451),
     (sym_tilde_operator, STATE 1385), (sym_await_expression, STATE 1302),
     (sym_new_expression, STATE 962), (sym_const_object_expression, STATE 962),
     (sym__primary, STATE 668), (sym_parenthesized_expression, STATE 962),
     (sym_constructor_invocation, STATE 643), (sym_constructor_tearoff, STATE 962),
     (sym_type_arguments, STATE 3200), (sym_switch_expression, STATE 962),
     (sym__parenthesized_pattern, STATE 3182), (sym_list_pattern, STATE 3182),
     (sym_map_pattern, STATE 3182), (sym__map_pattern_entry, STATE 2798),
     (sym_record_pattern, STATE 3182), (sym_object_pattern, STATE 3182),
     (sym__outer_pattern, STATE 3410), (sym_pattern_assignment, STATE 908),
     (sym_annotation, STATE 1361), (sym__metadata, STATE 2043),
     (sym_type_parameters, STATE 2932), (sym__type, STATE 3495),
     (sym__type_not_function, STATE 1796), (sym__type_not_void_not_function, STATE 1896),
     (sym_function_type, STATE 1848), (aux_sym__function_type_tails, STATE 1605),
     (sym__function_type_tail, STATE 1704), (sym_record_type, STATE 1805),
     (sym_record_type_named_field, STATE 2804), (sym__type_name, STATE 2004),
     (sym_typed_identifier, STATE 3101), (sym__formal_parameter_part, STATE 2339),
     (sym_formal_parameter_list, STATE 2020), (sym__strict_formal_parameter_list, STATE 2016),
     (sym__function_builtin_identifier, STATE 1463), (sym__new_builtin, STATE 2079),
     (sym_this, STATE 962), (sym_super, STATE 1337), (sym_comment, STATE 65),
     (sym_documentation_comment, STATE 65), (aux_sym_string_literal_repeat1, STATE 474),
     (aux_sym__metadata_repeat1, STATE 1308), (sym_identifier, ACTIONS 476),
     (anon_sym_POUND, ACTIONS 73), (sym_decimal_integer_literal, ACTIONS 75),
     (sym_hex_integer_literal, ACTIONS 77), (sym_decimal_floating_point_literal, ACTIONS 75),
     (anon_sym_true, ACTIONS 79), (anon_sym_false, ACTIONS 81), (anon_sym_DQUOTE, ACTIONS 83),
     (anon_sym_SQUOTE, ACTIONS 85), (anon_sym_DQUOTE_DQUOTE_DQUOTE, ACTIONS 87),
     (anon_sym_SQUOTE_SQUOTE_SQUOTE, ACTIONS 89), (anon_sym_r_DQUOTE, ACTIONS 91),
     (anon_sym_r_SQUOTE, ACTIONS 93), (anon_sym_r_DQUOTE_DQUOTE_DQUOTE, ACTIONS 95),
     (anon_sym_r_SQUOTE_SQUOTE_SQUOTE, ACTIONS 97), (anon_sym_LBRACE, ACTIONS 442),
     (anon_sym_RBRACE, ACTIONS 480), (anon_sym_LBRACK, ACTIONS 103),
     (anon_sym_null, ACTIONS 105), (anon_sym_LPAREN, ACTIONS 107), (anon_sym_throw, ACTIONS 109),
     (anon_sym_LT, ACTIONS 111), (sym_increment_operator, ACTIONS 113),
     (anon_sym_DOT_DOT_DOT, ACTIONS 482), (sym_minus_operator, ACTIONS 117),
     (anon_sym_BANG, ACTIONS 119), (anon_sym_TILDE, ACTIONS 121), (anon_sym_await, ACTIONS 432),
     (anon_sym_switch, ACTIONS 412), (anon_sym_AT, ACTIONS 143), (sym_void_type, ACTIONS 33),
     (sym_rethrow_builtin, ACTIONS 151), (anon_sym_Function, ACTIONS 45),
     (anon_sym_new, ACTIONS 155), (sym_const_builtin, ACTIONS 478), (anon_sym_this, ACTIONS 159),
     (anon_sym_super, ACTIONS 161), (anon_sym_SLASH_SLASH, ACTIONS 3),
     (anon_sym_SLASH_STAR, ACTIONS 5), (anon_sym_SLASH_SLASH_SLASH, ACTIONS 7),
     (sym__block_comment, ACTIONS 9), (sym__documentation_block_comment, ACTIONS 11)]"

lemma row_ok_65: "table_row_ok 65 ts_parse_table_65"
  by (simp add: row_simps ts_parse_table_65_def)

definition ts_parse_table_66 :: table_row where
  "ts_parse_table_66 = [
     (sym__bool_literal, STATE 989), (sym__numeric_literal, STATE 989),
     (sym__literal, STATE 962), (sym_symbol_literal, STATE 989), (sym_true, STATE 900),
     (sym_false, STATE 900), (sym_string_literal, STATE 989),
     (sym__string_literal_double_quotes, STATE 627),
     (sym__string_literal_single_quotes, STATE 627),
     (sym__string_literal_double_quotes_multiple, STATE 627),
     (sym__string_literal_single_quotes_multiple, STATE 627),
     (sym__raw_string_literal_double_quotes, STATE 627),
     (sym__raw_string_literal_single_quotes, STATE 627),
     (sym__raw_string_literal_double_quotes_multiple, STATE 627),
     (sym__raw_string_literal_single_quotes_multiple, STATE 627), (sym_list_literal, STATE 989),
     (sym_set_or_map_literal, STATE 989), (sym_null_literal, STATE 989),
     (sym_record_literal, STATE 989), (sym__record_literal_no_const, STATE 924),
     (sym_record_field, STATE 3150), (sym__expression, STATE 3455),
     (sym__real_expression, STATE 660), (sym_throw_expression, STATE 908),
     (sym_rethrow_expression, STATE 908), (sym_assignment_expression, STATE 908),
     (sym_assignable_expression, STATE 1940), (sym_function_expression, STATE 962),
     (sym_if_null_expression, STATE 1477), (sym_conditional_expression, STATE 1477),
     (sym_logical_or_expression, STATE 1477), (sym_logical_and_expression, STATE 1477),
     (sym_equality_expression, STATE 1477), (sym_type_cast_expression, STATE 1477),
     (sym_type_test_expression, STATE 1477), (sym_relational_expression, STATE 1477),
     (sym_bitwise_or_expression, STATE 1477), (sym_bitwise_xor_expression, STATE 1477),
     (sym_bitwise_and_expression, STATE 1477), (sym_shift_expression, STATE 1477),
     (sym_additive_expression, STATE 1477), (sym_multiplicative_expression, STATE 1477),
     (sym__unary_expression, STATE 1121), (sym_unary_expression, STATE 1303),
     (sym__postfix_expression, STATE 1303), (sym_postfix_expression, STATE 1301),
     (sym_prefix_operator, STATE 431), (sym_negation_operator, STATE 1450),
     (sym__exclamation_operator, STATE 1451), (sym_tilde_operator, STATE 1385),
     (sym_await_expression, STATE 1302), (sym_new_expression, STATE 962),
     (sym_const_object_expression, STATE 962), (sym__primary, STATE 668),
     (sym_parenthesized_expression, STATE 962), (sym_constructor_invocation, STATE 643),
     (sym_constructor_tearoff, STATE 962), (sym_type_arguments, STATE 3200),
     (sym_switch_expression, STATE 962), (sym__parenthesized_pattern, STATE 3182),
     (sym_list_pattern, STATE 3182), (sym_map_pattern, STATE 3182),
     (sym_record_pattern, STATE 3182), (sym_object_pattern, STATE 3182),
     (sym__outer_pattern, STATE 3410), (sym_pattern_assignment, STATE 908),
     (sym_annotation, STATE 1361), (sym__metadata, STATE 2088),
     (sym_type_parameters, STATE 2932), (sym__type, STATE 2822),
     (sym__type_not_function, STATE 1796), (sym__type_not_void_not_function, STATE 1896),
     (sym_function_type, STATE 1848), (aux_sym__function_type_tails, STATE 1605),
     (sym__function_type_tail, STATE 1704), (sym_record_type, STATE 1805),
     (sym_record_type_field, STATE 2827), (sym__type_name, STATE 2004),
     (sym__formal_parameter_part, STATE 2339), (sym_formal_parameter_list, STATE 2020),
     (sym__strict_formal_parameter_list, STATE 2016),
     (sym__function_builtin_identifier, STATE 1463), (sym__new_builtin, STATE 2079),
     (sym_this, STATE 962), (sym_super, STATE 1337), (sym_label, STATE 258),
     (sym_comment, STATE 66), (sym_documentation_comment, STATE 66),
     (aux_sym_string_literal_repeat1, STATE 474), (aux_sym__metadata_repeat1, STATE 1308),
     (sym_identifier, ACTIONS 484), (anon_sym_POUND, ACTIONS 73),
     (sym_decimal_integer_literal, ACTIONS 75), (sym_hex_integer_literal, ACTIONS 77),
     (sym_decimal_floating_point_literal, ACTIONS 75), (anon_sym_true, ACTIONS 79),
     (anon_sym_false, ACTIONS 81), (anon_sym_DQUOTE, ACTIONS 83), (anon_sym_SQUOTE, ACTIONS 85),
     (anon_sym_DQUOTE_DQUOTE_DQUOTE, ACTIONS 87), (anon_sym_SQUOTE_SQUOTE_SQUOTE, ACTIONS 89),
     (anon_sym_r_DQUOTE, ACTIONS 91), (anon_sym_r_SQUOTE, ACTIONS 93),
     (anon_sym_r_DQUOTE_DQUOTE_DQUOTE, ACTIONS 95),
     (anon_sym_r_SQUOTE_SQUOTE_SQUOTE, ACTIONS 97), (anon_sym_LBRACE, ACTIONS 486),
     (anon_sym_LBRACK, ACTIONS 103), (anon_sym_null, ACTIONS 105),
     (anon_sym_LPAREN, ACTIONS 107), (anon_sym_RPAREN, ACTIONS 488),
     (anon_sym_throw, ACTIONS 109), (anon_sym_LT, ACTIONS 111),
     (sym_increment_operator, ACTIONS 113), (sym_minus_operator, ACTIONS 117),
     (anon_sym_BANG, ACTIONS 119), (anon_sym_TILDE, ACTIONS 121), (anon_sym_await, ACTIONS 432),
     (anon_sym_switch, ACTIONS 412), (anon_sym_AT, ACTIONS 143), (sym_void_type, ACTIONS 33),
     (sym_rethrow_builtin, ACTIONS 151), (anon_sym_Function, ACTIONS 45),
     (anon_sym_new, ACTIONS 155), (sym_const_builtin, ACTIONS 478), (anon_sym_this, ACTIONS 159),
     (anon_sym_super, ACTIONS 161), (anon_sym_SLASH_SLASH, ACTIONS 3),
     (anon_sym_SLASH_STAR, ACTIONS 5), (anon_sym_SLASH_SLASH_SLASH, ACTIONS 7),
     (sym__block_comment, ACTIONS 9), (sym__documentation_block_comment, ACTIONS 11)]"

lemma row_ok_66: "table_row_ok 66 ts_parse_table_66"
  by (simp add: row_simps ts_parse_table_66_def)

definition ts_parse_table_67 :: table_row where
  "ts_parse_table_67 = [
     (sym__bool_literal, STATE 989), (sym__numeric_literal, STATE 989),
     (sym__literal, STATE 962), (sym_symbol_literal, STATE 989), (sym_true, STATE 900),
     (sym_false, STATE 900), (sym_string_literal, STATE 989),
     (sym__string_literal_double_quotes, STATE 627),
     (sym__string_literal_single_quotes, STATE 627),
     (sym__string_literal_double_quotes_multiple, STATE 627),
     (sym__string_literal_single_quotes_multiple, STATE 627),
     (sym__raw_string_literal_double_quotes, STATE 627),
     (sym__raw_string_literal_single_quotes, STATE 627),
     (sym__raw_string_literal_double_quotes_multiple, STATE 627),
     (sym__raw_string_literal_single_quotes_multiple, STATE 627), (sym_list_literal, STATE 989),
     (sym_set_or_map_literal, STATE 989), (sym_null_literal, STATE 989),
     (sym_record_literal, STATE 989), (sym__record_literal_no_const, STATE 924),
     (sym_record_field, STATE 3108), (sym__expression, STATE 3552),
     (sym__real_expression, STATE 660), (sym_throw_expression, STATE 908),
     (sym_rethrow_expression, STATE 908), (sym_assignment_expression, STATE 908),
     (sym_assignable_expression, STATE 1940), (sym_function_expression, STATE 962),
     (sym_if_null_expression, STATE 1477), (sym_conditional_expression, STATE 1477),
     (sym_logical_or_expression, STATE 1477), (sym_logical_and_expression, STATE 1477),
     (sym_equality_expression, STATE 1477), (sym_type_cast_expression, STATE 1477),
     (sym_type_test_expression, STATE 1477), (sym_relational_expression, STATE 1477),
     (sym_bitwise_or_expression, STATE 1477), (sym_bitwise_xor_expression, STATE 1477),
     (sym_bitwise_and_expression, STATE 1477), (sym_shift_expression, STATE 1477),
     (sym_additive_expression, STATE 1477), (sym_multiplicative_expression, STATE 1477),
     (sym__unary_expression, STATE 1121), (sym_unary_expression, STATE 1303),
     (sym__postfix_expression, STATE 1303), (sym_postfix_expression, STATE 1301),
     (sym_prefix_operator, STATE 431), (sym_negation_operator, STATE 1450),
     (sym__exclamation_operator, STATE 1451), (sym_tilde_operator, STATE 1385),
     (sym_await_expression, STATE 1302), (sym_new_expression, STATE 962),
     (sym_const_object_expression, STATE 962), (sym__primary, STATE 668),
     (sym_parenthesized_expression, STATE 962), (sym_constructor_invocation, STATE 643),
     (sym_constructor_tearoff, STATE 962), (sym_type_arguments, STATE 3200),
     (sym_switch_expression, STATE 962), (sym__parenthesized_pattern, STATE 3182),
     (sym_list_pattern, STATE 3182), (sym_map_pattern, STATE 3182),
     (sym_record_pattern, STATE 3182), (sym_object_pattern, STATE 3182),
     (sym__outer_pattern, STATE 3410), (sym_pattern_assignment, STATE 908),
     (sym_annotation, STATE 1361), (sym__metadata, STATE 2088),
     (sym_type_parameters, STATE 2932), (sym__type, STATE 2822),
     (sym__type_not_function, STATE 1796), (sym__type_not_void_not_function, STATE 1896),
     (sym_function_type, STATE 1848), (aux_sym__function_type_tails, STATE 1605),
     (sym__function_type_tail, STATE 1704), (sym_record_type, STATE 1805),
     (sym_record_type_field, STATE 2827), (sym__type_name, STATE 2004),
     (sym__formal_parameter_part, STATE 2339), (sym_formal_parameter_list, STATE 2020),
     (sym__strict_formal_parameter_list, STATE 2016),
     (sym__function_builtin_identifier, STATE 1463), (sym__new_builtin, STATE 2079),
     (sym_this, STATE 962), (sym_super, STATE 1337), (sym_label, STATE 213),
     (sym_comment, STATE 67), (sym_documentation_comment, STATE 67),
     (aux_sym_string_literal_repeat1, STATE 474), (aux_sym__metadata_repeat1, STATE 1308),
     (sym_identifier, ACTIONS 484), (anon_sym_POUND, ACTIONS 73),
     (sym_decimal_integer_literal, ACTIONS 75), (sym_hex_integer_literal, ACTIONS 77),
     (sym_decimal_floating_point_literal, ACTIONS 75), (anon_sym_true, ACTIONS 79),
     (anon_sym_false, ACTIONS 81), (anon_sym_DQUOTE, ACTIONS 83), (anon_sym_SQUOTE, ACTIONS 85),
     (anon_sym_DQUOTE_DQUOTE_DQUOTE, ACTIONS 87), (anon_sym_SQUOTE_SQUOTE_SQUOTE, ACTIONS 89),
     (anon_sym_r_DQUOTE, ACTIONS 91), (anon_sym_r_SQUOTE, ACTIONS 93),
     (anon_sym_r_DQUOTE_DQUOTE_DQUOTE, ACTIONS 95),
     (anon_sym_r_SQUOTE_SQUOTE_SQUOTE, ACTIONS 97), (anon_sym_LBRACE, ACTIONS 486),
     (anon_sym_LBRACK, ACTIONS 103), (anon_sym_null, ACTIONS 105),
     (anon_sym_LPAREN, ACTIONS 107), (anon_sym_RPAREN, ACTIONS 488),
     (anon_sym_throw, ACTIONS 109), (anon_sym_LT, ACTIONS 111),
     (sym_increment_operator, ACTIONS 113), (sym_minus_operator, ACTIONS 117),
     (anon_sym_BANG, ACTIONS 119), (anon_sym_TILDE, ACTIONS 121), (anon_sym_await, ACTIONS 432),
     (anon_sym_switch, ACTIONS 412), (anon_sym_AT, ACTIONS 143), (sym_void_type, ACTIONS 33),
     (sym_rethrow_builtin, ACTIONS 151), (anon_sym_Function, ACTIONS 45),
     (anon_sym_new, ACTIONS 155), (sym_const_builtin, ACTIONS 478), (anon_sym_this, ACTIONS 159),
     (anon_sym_super, ACTIONS 161), (anon_sym_SLASH_SLASH, ACTIONS 3),
     (anon_sym_SLASH_STAR, ACTIONS 5), (anon_sym_SLASH_SLASH_SLASH, ACTIONS 7),
     (sym__block_comment, ACTIONS 9), (sym__documentation_block_comment, ACTIONS 11)]"

lemma row_ok_67: "table_row_ok 67 ts_parse_table_67"
  by (simp add: row_simps ts_parse_table_67_def)

definition ts_parse_table_68 :: table_row where
  "ts_parse_table_68 = [
     (sym__bool_literal, STATE 989), (sym__numeric_literal, STATE 989),
     (sym__literal, STATE 962), (sym_symbol_literal, STATE 989), (sym_true, STATE 900),
     (sym_false, STATE 900), (sym_string_literal, STATE 989),
     (sym__string_literal_double_quotes, STATE 627),
     (sym__string_literal_single_quotes, STATE 627),
     (sym__string_literal_double_quotes_multiple, STATE 627),
     (sym__string_literal_single_quotes_multiple, STATE 627),
     (sym__raw_string_literal_double_quotes, STATE 627),
     (sym__raw_string_literal_single_quotes, STATE 627),
     (sym__raw_string_literal_double_quotes_multiple, STATE 627),
     (sym__raw_string_literal_single_quotes_multiple, STATE 627), (sym_list_literal, STATE 989),
     (sym_set_or_map_literal, STATE 989), (sym_null_literal, STATE 989),
     (sym_record_literal, STATE 989), (sym__record_literal_no_const, STATE 924),
     (sym_record_field, STATE 3085), (sym__expression, STATE 3334),
     (sym__real_expression, STATE 660), (sym_throw_expression, STATE 908),
     (sym_rethrow_expression, STATE 908), (sym_assignment_expression, STATE 908),
     (sym_assignable_expression, STATE 1940), (sym_function_expression, STATE 962),
     (sym_if_null_expression, STATE 1477), (sym_conditional_expression, STATE 1477),
     (sym_logical_or_expression, STATE 1477), (sym_logical_and_expression, STATE 1477),
     (sym_equality_expression, STATE 1477), (sym_type_cast_expression, STATE 1477),
     (sym_type_test_expression, STATE 1477), (sym_relational_expression, STATE 1477),
     (sym_bitwise_or_expression, STATE 1477), (sym_bitwise_xor_expression, STATE 1477),
     (sym_bitwise_and_expression, STATE 1477), (sym_shift_expression, STATE 1477),
     (sym_additive_expression, STATE 1477), (sym_multiplicative_expression, STATE 1477),
     (sym__unary_expression, STATE 1121), (sym_unary_expression, STATE 1303),
     (sym__postfix_expression, STATE 1303), (sym_postfix_expression, STATE 1301),
     (sym_prefix_operator, STATE 431), (sym_negation_operator, STATE 1450),
     (sym__exclamation_operator, STATE 1451), (sym_tilde_operator, STATE 1385),
     (sym_await_expression, STATE 1302), (sym_new_expression, STATE 962),
     (sym_const_object_expression, STATE 962), (sym__primary, STATE 668),
     (sym_parenthesized_expression, STATE 962), (sym_constructor_invocation, STATE 643),
     (sym_constructor_tearoff, STATE 962), (sym_type_arguments, STATE 3200),
     (sym_switch_expression, STATE 962), (sym__parenthesized_pattern, STATE 3182),
     (sym_list_pattern, STATE 3182), (sym_map_pattern, STATE 3182),
     (sym_record_pattern, STATE 3182), (sym_object_pattern, STATE 3182),
     (sym__outer_pattern, STATE 3410), (sym_pattern_assignment, STATE 908),
     (sym_annotation, STATE 1361), (sym__metadata, STATE 2088),
     (sym_type_parameters, STATE 2932), (sym__type, STATE 2822),
     (sym__type_not_function, STATE 1796), (sym__type_not_void_not_function, STATE 1896),
     (sym_function_type, STATE 1848), (aux_sym__function_type_tails, STATE 1605),
     (sym__function_type_tail, STATE 1704), (sym_record_type, STATE 1805),
     (sym_record_type_field, STATE 2827), (sym__type_name, STATE 2004),
     (sym__formal_parameter_part, STATE 2339), (sym_formal_parameter_list, STATE 2020),
     (sym__strict_formal_parameter_list, STATE 2016),
     (sym__function_builtin_identifier, STATE 1463), (sym__new_builtin, STATE 2079),
     (sym_this, STATE 962), (sym_super, STATE 1337), (sym_label, STATE 238),
     (sym_comment, STATE 68), (sym_documentation_comment, STATE 68),
     (aux_sym_string_literal_repeat1, STATE 474), (aux_sym__metadata_repeat1, STATE 1308),
     (sym_identifier, ACTIONS 484), (anon_sym_POUND, ACTIONS 73),
     (sym_decimal_integer_literal, ACTIONS 75), (sym_hex_integer_literal, ACTIONS 77),
     (sym_decimal_floating_point_literal, ACTIONS 75), (anon_sym_true, ACTIONS 79),
     (anon_sym_false, ACTIONS 81), (anon_sym_DQUOTE, ACTIONS 83), (anon_sym_SQUOTE, ACTIONS 85),
     (anon_sym_DQUOTE_DQUOTE_DQUOTE, ACTIONS 87), (anon_sym_SQUOTE_SQUOTE_SQUOTE, ACTIONS 89),
     (anon_sym_r_DQUOTE, ACTIONS 91), (anon_sym_r_SQUOTE, ACTIONS 93),
     (anon_sym_r_DQUOTE_DQUOTE_DQUOTE, ACTIONS 95),
     (anon_sym_r_SQUOTE_SQUOTE_SQUOTE, ACTIONS 97), (anon_sym_LBRACE, ACTIONS 486),
     (anon_sym_LBRACK, ACTIONS 103), (anon_sym_null, ACTIONS 105),
     (anon_sym_LPAREN, ACTIONS 107), (anon_sym_RPAREN, ACTIONS 488),
     (anon_sym_throw, ACTIONS 109), (anon_sym_LT, ACTIONS 111),
     (sym_increment_operator, ACTIONS 113), (sym_minus_operator, ACTIONS 117),
     (anon_sym_BANG, ACTIONS 119), (anon_sym_TILDE, ACTIONS 121), (anon_sym_await, ACTIONS 432),
     (anon_sym_switch, ACTIONS 412), (anon_sym_AT, ACTIONS 143), (sym_void_type, ACTIONS 33),
     (sym_rethrow_builtin, ACTIONS 151), (anon_sym_Function, ACTIONS 45),
     (anon_sym_new, ACTIONS 155), (sym_const_builtin, ACTIONS 478), (anon_sym_this, ACTIONS 159),
     (anon_sym_super, ACTIONS 161), (anon_sym_SLASH_SLASH, ACTIONS 3),
     (anon_sym_SLASH_STAR, ACTIONS 5), (anon_sym_SLASH_SLASH_SLASH, ACTIONS 7),
     (sym__block_comment, ACTIONS 9), (sym__documentation_block_comment, ACTIONS 11)]"

lemma row_ok_68: "table_row_ok 68 ts_parse_table_68"
  by (simp add: row_simps ts_parse_table_68_def)

definition ts_parse_table_69 :: table_row where
  "ts_parse_table_69 = [
     (sym__bool_literal, STATE 989), (sym__numeric_literal, STATE 989),
     (sym__literal, STATE 962), (sym_symbol_literal, STATE 989), (sym_true, STATE 900),
     (sym_false, STATE 900), (sym_string_literal, STATE 989),
     (sym__string_literal_double_quotes, STATE 627),
     (sym__string_literal_single_quotes, STATE 627),
     (sym__string_literal_double_quotes_multiple, STATE 627),
     (sym__string_literal_single_quotes_multiple, STATE 627),
     (sym__raw_string_literal_double_quotes, STATE 627),
     (sym__raw_string_literal_single_quotes, STATE 627),
     (sym__raw_string_literal_double_quotes_multiple, STATE 627),
     (sym__raw_string_literal_single_quotes_multiple, STATE 627), (sym_list_literal, STATE 989),
     (sym_set_or_map_literal, STATE 989), (sym_null_literal, STATE 989),
     (sym_record_literal, STATE 989), (sym__record_literal_no_const, STATE 924),
     (sym_record_field, STATE 3105), (sym__expression, STATE 3475),
     (sym__real_expression, STATE 660), (sym_throw_expression, STATE 908),
     (sym_rethrow_expression, STATE 908), (sym_assignment_expression, STATE 908),
     (sym_assignable_expression, STATE 1940), (sym_function_expression, STATE 962),
     (sym_if_null_expression, STATE 1477), (sym_conditional_expression, STATE 1477),
     (sym_logical_or_expression, STATE 1477), (sym_logical_and_expression, STATE 1477),
     (sym_equality_expression, STATE 1477), (sym_type_cast_expression, STATE 1477),
     (sym_type_test_expression, STATE 1477), (sym_relational_expression, STATE 1477),
     (sym_bitwise_or_expression, STATE 1477), (sym_bitwise_xor_expression, STATE 1477),
     (sym_bitwise_and_expression, STATE 1477), (sym_shift_expression, STATE 1477),
     (sym_additive_expression, STATE 1477), (sym_multiplicative_expression, STATE 1477),
     (sym__unary_expression, STATE 1121), (sym_unary_expression, STATE 1303),
     (sym__postfix_expression, STATE 1303), (sym_postfix_expression, STATE 1301),
     (sym_prefix_operator, STATE 431), (sym_negation_operator, STATE 1450),
     (sym__exclamation_operator, STATE 1451), (sym_tilde_operator, STATE 1385),
     (sym_await_expression, STATE 1302), (sym_new_expression, STATE 962),
     (sym_const_object_expression, STATE 962), (sym__primary, STATE 668),
     (sym_parenthesized_expression, STATE 962), (sym_constructor_invocation, STATE 643),
     (sym_constructor_tearoff, STATE 962), (sym_type_arguments, STATE 3200),
     (sym_switch_expression, STATE 962), (sym__parenthesized_pattern, STATE 3182),
     (sym_list_pattern, STATE 3182), (sym_map_pattern, STATE 3182),
     (sym_record_pattern, STATE 3182), (sym_object_pattern, STATE 3182),
     (sym__outer_pattern, STATE 3410), (sym_pattern_assignment, STATE 908),
     (sym_annotation, STATE 1361), (sym__metadata, STATE 2088),
     (sym_type_parameters, STATE 2932), (sym__type, STATE 2822),
     (sym__type_not_function, STATE 1796), (sym__type_not_void_not_function, STATE 1896),
     (sym_function_type, STATE 1848), (aux_sym__function_type_tails, STATE 1605),
     (sym__function_type_tail, STATE 1704), (sym_record_type, STATE 1805),
     (sym_record_type_field, STATE 2827), (sym__type_name, STATE 2004),
     (sym__formal_parameter_part, STATE 2339), (sym_formal_parameter_list, STATE 2020),
     (sym__strict_formal_parameter_list, STATE 2016),
     (sym__function_builtin_identifier, STATE 1463), (sym__new_builtin, STATE 2079),
     (sym_this, STATE 962), (sym_super, STATE 1337), (sym_label, STATE 257),
     (sym_comment, STATE 69), (sym_documentation_comment, STATE 69),
     (aux_sym_string_literal_repeat1, STATE 474), (aux_sym__metadata_repeat1, STATE 1308),
     (sym_identifier, ACTIONS 484), (anon_sym_POUND, ACTIONS 73),
     (sym_decimal_integer_literal, ACTIONS 75), (sym_hex_integer_literal, ACTIONS 77),
     (sym_decimal_floating_point_literal, ACTIONS 75), (anon_sym_true, ACTIONS 79),
     (anon_sym_false, ACTIONS 81), (anon_sym_DQUOTE, ACTIONS 83), (anon_sym_SQUOTE, ACTIONS 85),
     (anon_sym_DQUOTE_DQUOTE_DQUOTE, ACTIONS 87), (anon_sym_SQUOTE_SQUOTE_SQUOTE, ACTIONS 89),
     (anon_sym_r_DQUOTE, ACTIONS 91), (anon_sym_r_SQUOTE, ACTIONS 93),
     (anon_sym_r_DQUOTE_DQUOTE_DQUOTE, ACTIONS 95),
     (anon_sym_r_SQUOTE_SQUOTE_SQUOTE, ACTIONS 97), (anon_sym_LBRACE, ACTIONS 486),
     (anon_sym_LBRACK, ACTIONS 103), (anon_sym_null, ACTIONS 105),
     (anon_sym_LPAREN, ACTIONS 107), (anon_sym_RPAREN, ACTIONS 488),
     (anon_sym_throw, ACTIONS 109), (anon_sym_LT, ACTIONS 111),
     (sym_increment_operator, ACTIONS 113), (sym_minus_operator, ACTIONS 117),
     (anon_sym_BANG, ACTIONS 119), (anon_sym_TILDE, ACTIONS 121), (anon_sym_await, ACTIONS 432),
     (anon_sym_switch, ACTIONS 412), (anon_sym_AT, ACTIONS 143), (sym_void_type, ACTIONS 33),
     (sym_rethrow_builtin, ACTIONS 151), (anon_sym_Function, ACTIONS 45),
     (anon_sym_new, ACTIONS 155), (sym_const_builtin, ACTIONS 478), (anon_sym_this, ACTIONS 159),
     (anon_sym_super, ACTIONS 161), (anon_sym_SLASH_SLASH, ACTIONS 3),
     (anon_sym_SLASH_STAR, ACTIONS 5), (anon_sym_SLASH_SLASH_SLASH, ACTIONS 7),
     (sym__block_comment, ACTIONS 9), (sym__documentation_block_comment, ACTIONS 11)]"

lemma row_ok_69: "table_row_ok 69 ts_parse_table_69"
  by (simp add: row_simps ts_parse_table_69_def)

definition ts_parse_table_70 :: table_row where
  "ts_parse_table_70 = [
     (sym__bool_literal, STATE 989), (sym__numeric_literal, STATE 989),
     (sym__literal, STATE 962), (sym_symbol_literal, STATE 989), (sym_true, STATE 900),
     (sym_false, STATE 900), (sym_string_literal, STATE 989),
     (sym__string_literal_double_quotes, STATE 627),
     (sym__string_literal_single_quotes, STATE 627),
     (sym__string_literal_double_quotes_multiple, STATE 627),
     (sym__string_literal_single_quotes_multiple, STATE 627),
     (sym__raw_string_literal_double_quotes, STATE 627),
     (sym__raw_string_literal_single_quotes, STATE 627),
     (sym__raw_string_literal_double_quotes_multiple, STATE 627),
     (sym__raw_string_literal_single_quotes_multiple, STATE 627), (sym_list_literal, STATE 989),
     (sym_set_or_map_literal, STATE 989), (sym_null_literal, STATE 989),
     (sym_record_literal, STATE 989), (sym__record_literal_no_const, STATE 924),
     (sym_record_field, STATE 3108), (sym__expression, STATE 3258),
     (sym__real_expression, STATE 660), (sym_throw_expression, STATE 908),
     (sym_rethrow_expression, STATE 908), (sym_assignment_expression, STATE 908),
     (sym_assignable_expression, STATE 1940), (sym_function_expression, STATE 962),
     (sym_if_null_expression, STATE 1477), (sym_conditional_expression, STATE 1477),
     (sym_logical_or_expression, STATE 1477), (sym_logical_and_expression, STATE 1477),
     (sym_equality_expression, STATE 1477), (sym_type_cast_expression, STATE 1477),
     (sym_type_test_expression, STATE 1477), (sym_relational_expression, STATE 1477),
     (sym_bitwise_or_expression, STATE 1477), (sym_bitwise_xor_expression, STATE 1477),
     (sym_bitwise_and_expression, STATE 1477), (sym_shift_expression, STATE 1477),
     (sym_additive_expression, STATE 1477), (sym_multiplicative_expression, STATE 1477),
     (sym__unary_expression, STATE 1121), (sym_unary_expression, STATE 1303),
     (sym__postfix_expression, STATE 1303), (sym_postfix_expression, STATE 1301),
     (sym_prefix_operator, STATE 431), (sym_negation_operator, STATE 1450),
     (sym__exclamation_operator, STATE 1451), (sym_tilde_operator, STATE 1385),
     (sym_await_expression, STATE 1302), (sym_new_expression, STATE 962),
     (sym_const_object_expression, STATE 962), (sym__primary, STATE 668),
     (sym_parenthesized_expression, STATE 962), (sym_constructor_invocation, STATE 643),
     (sym_constructor_tearoff, STATE 962), (sym_type_arguments, STATE 3200),
     (sym_switch_expression, STATE 962), (sym__parenthesized_pattern, STATE 3182),
     (sym_list_pattern, STATE 3182), (sym_map_pattern, STATE 3182),
     (sym_record_pattern, STATE 3182), (sym_object_pattern, STATE 3182),
     (sym__outer_pattern, STATE 3410), (sym_pattern_assignment, STATE 908),
     (sym_annotation, STATE 1361), (sym__metadata, STATE 2088),
     (sym_type_parameters, STATE 2932), (sym__type, STATE 2822),
     (sym__type_not_function, STATE 1796), (sym__type_not_void_not_function, STATE 1896),
     (sym_function_type, STATE 1848), (aux_sym__function_type_tails, STATE 1605),
     (sym__function_type_tail, STATE 1704), (sym_record_type, STATE 1805),
     (sym_record_type_field, STATE 2827), (sym__type_name, STATE 2004),
     (sym__formal_parameter_part, STATE 2339), (sym_formal_parameter_list, STATE 2020),
     (sym__strict_formal_parameter_list, STATE 2016),
     (sym__function_builtin_identifier, STATE 1463), (sym__new_builtin, STATE 2079),
     (sym_this, STATE 962), (sym_super, STATE 1337), (sym_label, STATE 213),
     (sym_comment, STATE 70), (sym_documentation_comment, STATE 70),
     (aux_sym_string_literal_repeat1, STATE 474), (aux_sym__metadata_repeat1, STATE 1308),
     (sym_identifier, ACTIONS 490), (anon_sym_POUND, ACTIONS 73),
     (sym_decimal_integer_literal, ACTIONS 75), (sym_hex_integer_literal, ACTIONS 77),
     (sym_decimal_floating_point_literal, ACTIONS 75), (anon_sym_true, ACTIONS 79),
     (anon_sym_false, ACTIONS 81), (anon_sym_DQUOTE, ACTIONS 83), (anon_sym_SQUOTE, ACTIONS 85),
     (anon_sym_DQUOTE_DQUOTE_DQUOTE, ACTIONS 87), (anon_sym_SQUOTE_SQUOTE_SQUOTE, ACTIONS 89),
     (anon_sym_r_DQUOTE, ACTIONS 91), (anon_sym_r_SQUOTE, ACTIONS 93),
     (anon_sym_r_DQUOTE_DQUOTE_DQUOTE, ACTIONS 95),
     (anon_sym_r_SQUOTE_SQUOTE_SQUOTE, ACTIONS 97), (anon_sym_LBRACE, ACTIONS 486),
     (anon_sym_LBRACK, ACTIONS 103), (anon_sym_null, ACTIONS 105),
     (anon_sym_LPAREN, ACTIONS 107), (anon_sym_RPAREN, ACTIONS 488),
     (anon_sym_throw, ACTIONS 109), (anon_sym_LT, ACTIONS 111),
     (sym_increment_operator, ACTIONS 113), (sym_minus_operator, ACTIONS 117),
     (anon_sym_BANG, ACTIONS 119), (anon_sym_TILDE, ACTIONS 121), (anon_sym_await, ACTIONS 432),
     (anon_sym_switch, ACTIONS 412), (anon_sym_AT, ACTIONS 143), (sym_void_type, ACTIONS 33),
     (sym_rethrow_builtin, ACTIONS 151), (anon_sym_Function, ACTIONS 45),
     (anon_sym_new, ACTIONS 155), (sym_const_builtin, ACTIONS 478), (anon_sym_this, ACTIONS 159),
     (anon_sym_super, ACTIONS 161), (anon_sym_SLASH_SLASH, ACTIONS 3),
     (anon_sym_SLASH_STAR, ACTIONS 5), (anon_sym_SLASH_SLASH_SLASH, ACTIONS 7),
     (sym__block_comment, ACTIONS 9), (sym__documentation_block_comment, ACTIONS 11)]"

lemma row_ok_70: "table_row_ok 70 ts_parse_table_70"
  by (simp add: row_simps ts_parse_table_70_def)

definition ts_parse_table_71 :: table_row where
  "ts_parse_table_71 = [
     (sym__bool_literal, STATE 989), (sym__numeric_literal, STATE 989),
     (sym__literal, STATE 962), (sym_symbol_literal, STATE 989), (sym_true, STATE 900),
     (sym_false, STATE 900), (sym_string_literal, STATE 989),
     (sym__string_literal_double_quotes, STATE 627),
     (sym__string_literal_single_quotes, STATE 627),
     (sym__string_literal_double_quotes_multiple, STATE 627),
     (sym__string_literal_single_quotes_multiple, STATE 627),
     (sym__raw_string_literal_double_quotes, STATE 627),
     (sym__raw_string_literal_single_quotes, STATE 627),
     (sym__raw_string_literal_double_quotes_multiple, STATE 627),
     (sym__raw_string_literal_single_quotes_multiple, STATE 627), (sym_list_literal, STATE 989),
     (sym_set_or_map_literal, STATE 989), (sym_null_literal, STATE 989),
     (sym_record_literal, STATE 989), (sym__record_literal_no_const, STATE 924),
     (sym__expression, STATE 3496), (sym__real_expression, STATE 660),
     (sym_throw_expression, STATE 908), (sym_rethrow_expression, STATE 908),
     (sym_assignment_expression, STATE 908), (sym_assignable_expression, STATE 1940),
     (sym_function_expression, STATE 962), (sym_if_null_expression, STATE 1477),
     (sym_conditional_expression, STATE 1477), (sym_logical_or_expression, STATE 1477),
     (sym_logical_and_expression, STATE 1477), (sym_equality_expression, STATE 1477),
     (sym_type_cast_expression, STATE 1477), (sym_type_test_expression, STATE 1477),
     (sym_relational_expression, STATE 1477), (sym_bitwise_or_expression, STATE 1477),
     (sym_bitwise_xor_expression, STATE 1477), (sym_bitwise_and_expression, STATE 1477),
     (sym_shift_expression, STATE 1477), (sym_additive_expression, STATE 1477),
     (sym_multiplicative_expression, STATE 1477), (sym__unary_expression, STATE 1121),
     (sym_unary_expression, STATE 1303), (sym__postfix_expression, STATE 1303),
     (sym_postfix_expression, STATE 1301), (sym_prefix_operator, STATE 431),
     (sym_negation_operator, STATE 1450), (sym__exclamation_operator, STATE 1451),
     (sym_tilde_operator, STATE 1385), (sym_await_expression, STATE 1302),
     (sym_new_expression, STATE 962), (sym_const_object_expression, STATE 962),
     (sym__primary, STATE 668), (sym_parenthesized_expression, STATE 962),
     (sym_constructor_invocation, STATE 643), (sym_constructor_tearoff, STATE 962),
     (sym_type_arguments, STATE 3200), (sym_switch_expression, STATE 962),
     (sym__parenthesized_pattern, STATE 3182), (sym_list_pattern, STATE 3182),
     (sym_map_pattern, STATE 3182), (sym_record_pattern, STATE 3182),
     (sym_object_pattern, STATE 3182), (sym__outer_pattern, STATE 3410),
     (sym_pattern_assignment, STATE 908), (sym_annotation, STATE 1361),
     (sym__metadata, STATE 2088), (sym_type_parameters, STATE 2932), (sym__type, STATE 2822),
     (sym__type_not_function, STATE 1796), (sym__type_not_void_not_function, STATE 1896),
     (sym_function_type, STATE 1848), (aux_sym__function_type_tails, STATE 1605),
     (sym__function_type_tail, STATE 1704), (sym_record_type, STATE 1805),
     (sym_record_type_field, STATE 2827), (sym__type_name, STATE 2004),
     (sym__formal_parameter_part, STATE 2339), (sym_formal_parameter_list, STATE 2020),
     (sym__strict_formal_parameter_list, STATE 2016),
     (sym__function_builtin_identifier, STATE 1463), (sym__new_builtin, STATE 2079),
     (sym_this, STATE 962), (sym_super, STATE 1337), (sym_comment, STATE 71),
     (sym_documentation_comment, STATE 71), (aux_sym_string_literal_repeat1, STATE 474),
     (aux_sym__metadata_repeat1, STATE 1308), (sym_identifier, ACTIONS 492),
     (anon_sym_POUND, ACTIONS 73), (sym_decimal_integer_literal, ACTIONS 75),
     (sym_hex_integer_literal, ACTIONS 77), (sym_decimal_floating_point_literal, ACTIONS 75),
     (anon_sym_true, ACTIONS 79), (anon_sym_false, ACTIONS 81), (anon_sym_DQUOTE, ACTIONS 83),
     (anon_sym_SQUOTE, ACTIONS 85), (anon_sym_DQUOTE_DQUOTE_DQUOTE, ACTIONS 87),
     (anon_sym_SQUOTE_SQUOTE_SQUOTE, ACTIONS 89), (anon_sym_r_DQUOTE, ACTIONS 91),
     (anon_sym_r_SQUOTE, ACTIONS 93), (anon_sym_r_DQUOTE_DQUOTE_DQUOTE, ACTIONS 95),
     (anon_sym_r_SQUOTE_SQUOTE_SQUOTE, ACTIONS 97), (anon_sym_LBRACE, ACTIONS 486),
     (anon_sym_LBRACK, ACTIONS 103), (anon_sym_null, ACTIONS 105),
     (anon_sym_LPAREN, ACTIONS 107), (anon_sym_RPAREN, ACTIONS 488),
     (anon_sym_throw, ACTIONS 109), (anon_sym_LT, ACTIONS 111),
     (sym_increment_operator, ACTIONS 113), (sym_minus_operator, ACTIONS 117),
     (anon_sym_BANG, ACTIONS 119), (anon_sym_TILDE, ACTIONS 121), (anon_sym_await, ACTIONS 432),
     (anon_sym_switch, ACTIONS 412), (anon_sym_AT, ACTIONS 143), (sym_void_type, ACTIONS 33),
     (sym_rethrow_builtin, ACTIONS 151), (anon_sym_Function, ACTIONS 45),
     (anon_sym_new, ACTIONS 155), (sym_const_builtin, ACTIONS 478), (anon_sym_this, ACTIONS 159),
     (anon_sym_super, ACTIONS 161), (anon_sym_SLASH_SLASH, ACTIONS 3),
     (anon_sym_SLASH_STAR, ACTIONS 5), (anon_sym_SLASH_SLASH_SLASH, ACTIONS 7),
     (sym__block_comment, ACTIONS 9), (sym__documentation_block_comment, ACTIONS 11)]"

lemma row_ok_71: "table_row_ok 71 ts_parse_table_71"
  by (simp add: row_simps ts_parse_table_71_def)

definition ts_parse_table_72 :: table_row where
  "ts_parse_table_72 = [
     (sym__bool_literal, STATE 989), (sym__numeric_literal, STATE 989),
     (sym__literal, STATE 962), (sym_symbol_literal, STATE 989), (sym_true, STATE 900),
     (sym_false, STATE 900), (sym_string_literal, STATE 989),
     (sym__string_literal_double_quotes, STATE 627),
     (sym__string_literal_single_quotes, STATE 627),
     (sym__string_literal_double_quotes_multiple, STATE 627),
     (sym__string_literal_single_quotes_multiple, STATE 627),
     (sym__raw_string_literal_double_quotes, STATE 627),
     (sym__raw_string_literal_single_quotes, STATE 627),
     (sym__raw_string_literal_double_quotes_multiple, STATE 627),
     (sym__raw_string_literal_single_quotes_multiple, STATE 627), (sym_list_literal, STATE 989),
     (sym_set_or_map_literal, STATE 989), (sym_pair, STATE 2660), (sym__element, STATE 2953),
     (sym_null_literal, STATE 989), (sym_record_literal, STATE 989),
     (sym__record_literal_no_const, STATE 924), (sym__expression, STATE 2688),
     (sym__real_expression, STATE 660), (sym_throw_expression, STATE 908),
     (sym_rethrow_expression, STATE 908), (sym_assignment_expression, STATE 908),
     (sym_assignable_expression, STATE 1940), (sym_function_expression, STATE 962),
     (sym_if_null_expression, STATE 1477), (sym_conditional_expression, STATE 1477),
     (sym_logical_or_expression, STATE 1477), (sym_logical_and_expression, STATE 1477),
     (sym_equality_expression, STATE 1477), (sym_type_cast_expression, STATE 1477),
     (sym_type_test_expression, STATE 1477), (sym_relational_expression, STATE 1477),
     (sym_bitwise_or_expression, STATE 1477), (sym_bitwise_xor_expression, STATE 1477),
     (sym_bitwise_and_expression, STATE 1477), (sym_shift_expression, STATE 1477),
     (sym_additive_expression, STATE 1477), (sym_multiplicative_expression, STATE 1477),
     (sym__unary_expression, STATE 1121), (sym_unary_expression, STATE 1303),
     (sym__postfix_expression, STATE 1303), (sym_postfix_expression, STATE 1301),
     (sym_spread_element, STATE 2660), (sym_prefix_operator, STATE 431),
     (sym_negation_operator, STATE 1450), (sym__exclamation_operator, STATE 1451),
     (sym_tilde_operator, STATE 1385), (sym_await_expression, STATE 1302),
     (sym_new_expression, STATE 962), (sym_const_object_expression, STATE 962),
     (sym__primary, STATE 668), (sym_parenthesized_expression, STATE 962),
     (sym_constructor_invocation, STATE 643), (sym_constructor_tearoff, STATE 962),
     (sym_type_arguments, STATE 3200), (sym_switch_expression, STATE 962),
     (sym__parenthesized_pattern, STATE 3182), (sym_list_pattern, STATE 3182),
     (sym_map_pattern, STATE 3182), (sym__map_pattern_entry, STATE 2986),
     (sym_record_pattern, STATE 3182), (sym_object_pattern, STATE 3182),
     (sym__outer_pattern, STATE 3410), (sym_pattern_assignment, STATE 908),
     (sym_if_element, STATE 2660), (sym_for_element, STATE 2660),
     (sym_type_parameters, STATE 2932), (sym__type_name, STATE 2661),
     (sym__formal_parameter_part, STATE 2339), (sym_formal_parameter_list, STATE 2020),
     (sym__strict_formal_parameter_list, STATE 2016), (sym__new_builtin, STATE 2079),
     (sym_this, STATE 962), (sym_super, STATE 1337), (sym_comment, STATE 72),
     (sym_documentation_comment, STATE 72), (aux_sym_string_literal_repeat1, STATE 474),
     (sym_identifier, ACTIONS 494), (anon_sym_POUND, ACTIONS 73),
     (sym_decimal_integer_literal, ACTIONS 75), (sym_hex_integer_literal, ACTIONS 77),
     (sym_decimal_floating_point_literal, ACTIONS 75), (anon_sym_true, ACTIONS 79),
     (anon_sym_false, ACTIONS 81), (anon_sym_DQUOTE, ACTIONS 83), (anon_sym_SQUOTE, ACTIONS 85),
     (anon_sym_DQUOTE_DQUOTE_DQUOTE, ACTIONS 87), (anon_sym_SQUOTE_SQUOTE_SQUOTE, ACTIONS 89),
     (anon_sym_r_DQUOTE, ACTIONS 91), (anon_sym_r_SQUOTE, ACTIONS 93),
     (anon_sym_r_DQUOTE_DQUOTE_DQUOTE, ACTIONS 95),
     (anon_sym_r_SQUOTE_SQUOTE_SQUOTE, ACTIONS 97), (anon_sym_LBRACE, ACTIONS 442),
     (anon_sym_RBRACE, ACTIONS 496), (anon_sym_LBRACK, ACTIONS 103),
     (anon_sym_null, ACTIONS 105), (anon_sym_LPAREN, ACTIONS 498), (anon_sym_throw, ACTIONS 109),
     (anon_sym_LT, ACTIONS 111), (sym_increment_operator, ACTIONS 113),
     (anon_sym_DOT_DOT_DOT, ACTIONS 115), (sym_minus_operator, ACTIONS 117),
     (anon_sym_BANG, ACTIONS 119), (anon_sym_TILDE, ACTIONS 121), (anon_sym_await, ACTIONS 410),
     (anon_sym_switch, ACTIONS 412), (anon_sym_if, ACTIONS 414), (anon_sym_for, ACTIONS 416),
     (sym_rethrow_builtin, ACTIONS 151), (anon_sym_new, ACTIONS 155),
     (sym_const_builtin, ACTIONS 478), (anon_sym_this, ACTIONS 159),
     (anon_sym_super, ACTIONS 161), (anon_sym_SLASH_SLASH, ACTIONS 3),
     (anon_sym_SLASH_STAR, ACTIONS 5), (anon_sym_SLASH_SLASH_SLASH, ACTIONS 7),
     (sym__block_comment, ACTIONS 9), (sym__documentation_block_comment, ACTIONS 11)]"

lemma row_ok_72: "table_row_ok 72 ts_parse_table_72"
  by (simp add: row_simps ts_parse_table_72_def)

definition ts_parse_table_73 :: table_row where
  "ts_parse_table_73 = [
     (sym__bool_literal, STATE 989), (sym__numeric_literal, STATE 989),
     (sym__literal, STATE 962), (sym_symbol_literal, STATE 989), (sym_true, STATE 900),
     (sym_false, STATE 900), (sym_string_literal, STATE 989),
     (sym__string_literal_double_quotes, STATE 627),
     (sym__string_literal_single_quotes, STATE 627),
     (sym__string_literal_double_quotes_multiple, STATE 627),
     (sym__string_literal_single_quotes_multiple, STATE 627),
     (sym__raw_string_literal_double_quotes, STATE 627),
     (sym__raw_string_literal_single_quotes, STATE 627),
     (sym__raw_string_literal_double_quotes_multiple, STATE 627),
     (sym__raw_string_literal_single_quotes_multiple, STATE 627), (sym_list_literal, STATE 989),
     (sym_set_or_map_literal, STATE 989), (sym_pair, STATE 2660), (sym__element, STATE 2830),
     (sym_null_literal, STATE 989), (sym_record_literal, STATE 989),
     (sym__record_literal_no_const, STATE 924), (sym__expression, STATE 2688),
     (sym__real_expression, STATE 660), (sym_throw_expression, STATE 908),
     (sym_rethrow_expression, STATE 908), (sym_assignment_expression, STATE 908),
     (sym_assignable_expression, STATE 1940), (sym_function_expression, STATE 962),
     (sym_if_null_expression, STATE 1477), (sym_conditional_expression, STATE 1477),
     (sym_logical_or_expression, STATE 1477), (sym_logical_and_expression, STATE 1477),
     (sym_equality_expression, STATE 1477), (sym_type_cast_expression, STATE 1477),
     (sym_type_test_expression, STATE 1477), (sym_relational_expression, STATE 1477),
     (sym_bitwise_or_expression, STATE 1477), (sym_bitwise_xor_expression, STATE 1477),
     (sym_bitwise_and_expression, STATE 1477), (sym_shift_expression, STATE 1477),
     (sym_additive_expression, STATE 1477), (sym_multiplicative_expression, STATE 1477),
     (sym__unary_expression, STATE 1121), (sym_unary_expression, STATE 1303),
     (sym__postfix_expression, STATE 1303), (sym_postfix_expression, STATE 1301),
     (sym_spread_element, STATE 2660), (sym_prefix_operator, STATE 431),
     (sym_negation_operator, STATE 1450), (sym__exclamation_operator, STATE 1451),
     (sym_tilde_operator, STATE 1385), (sym_await_expression, STATE 1302),
     (sym_new_expression, STATE 962), (sym_const_object_expression, STATE 962),
     (sym__primary, STATE 668), (sym_parenthesized_expression, STATE 962),
     (sym_constructor_invocation, STATE 643), (sym_constructor_tearoff, STATE 962),
     (sym_type_arguments, STATE 3200), (sym_switch_expression, STATE 962),
     (sym__parenthesized_pattern, STATE 3182), (sym_list_pattern, STATE 3182),
     (sym_map_pattern, STATE 3182), (sym__map_pattern_entry, STATE 2798),
     (sym_record_pattern, STATE 3182), (sym_object_pattern, STATE 3182),
     (sym__outer_pattern, STATE 3410), (sym_pattern_assignment, STATE 908),
     (sym_if_element, STATE 2660), (sym_for_element, STATE 2660),
     (sym_type_parameters, STATE 2932), (sym__type_name, STATE 2661),
     (sym__formal_parameter_part, STATE 2339), (sym_formal_parameter_list, STATE 2020),
     (sym__strict_formal_parameter_list, STATE 2016), (sym__new_builtin, STATE 2079),
     (sym_this, STATE 962), (sym_super, STATE 1337), (sym_comment, STATE 73),
     (sym_documentation_comment, STATE 73), (aux_sym_string_literal_repeat1, STATE 474),
     (sym_identifier, ACTIONS 494), (anon_sym_POUND, ACTIONS 73),
     (sym_decimal_integer_literal, ACTIONS 75), (sym_hex_integer_literal, ACTIONS 77),
     (sym_decimal_floating_point_literal, ACTIONS 75), (anon_sym_true, ACTIONS 79),
     (anon_sym_false, ACTIONS 81), (anon_sym_DQUOTE, ACTIONS 83), (anon_sym_SQUOTE, ACTIONS 85),
     (anon_sym_DQUOTE_DQUOTE_DQUOTE, ACTIONS 87), (anon_sym_SQUOTE_SQUOTE_SQUOTE, ACTIONS 89),
     (anon_sym_r_DQUOTE, ACTIONS 91), (anon_sym_r_SQUOTE, ACTIONS 93),
     (anon_sym_r_DQUOTE_DQUOTE_DQUOTE, ACTIONS 95),
     (anon_sym_r_SQUOTE_SQUOTE_SQUOTE, ACTIONS 97), (anon_sym_LBRACE, ACTIONS 442),
     (anon_sym_RBRACE, ACTIONS 500), (anon_sym_LBRACK, ACTIONS 103),
     (anon_sym_null, ACTIONS 105), (anon_sym_LPAREN, ACTIONS 498), (anon_sym_throw, ACTIONS 109),
     (anon_sym_LT, ACTIONS 111), (sym_increment_operator, ACTIONS 113),
     (anon_sym_DOT_DOT_DOT, ACTIONS 115), (sym_minus_operator, ACTIONS 117),
     (anon_sym_BANG, ACTIONS 119), (anon_sym_TILDE, ACTIONS 121), (anon_sym_await, ACTIONS 410),
     (anon_sym_switch, ACTIONS 412), (anon_sym_if, ACTIONS 414), (anon_sym_for, ACTIONS 416),
     (sym_rethrow_builtin, ACTIONS 151), (anon_sym_new, ACTIONS 155),
     (sym_const_builtin, ACTIONS 478), (anon_sym_this, ACTIONS 159),
     (anon_sym_super, ACTIONS 161), (anon_sym_SLASH_SLASH, ACTIONS 3),
     (anon_sym_SLASH_STAR, ACTIONS 5), (anon_sym_SLASH_SLASH_SLASH, ACTIONS 7),
     (sym__block_comment, ACTIONS 9), (sym__documentation_block_comment, ACTIONS 11)]"

lemma row_ok_73: "table_row_ok 73 ts_parse_table_73"
  by (simp add: row_simps ts_parse_table_73_def)

definition ts_parse_table_74 :: table_row where
  "ts_parse_table_74 = [
     (sym__bool_literal, STATE 989), (sym__numeric_literal, STATE 989),
     (sym__literal, STATE 962), (sym_symbol_literal, STATE 989), (sym_true, STATE 900),
     (sym_false, STATE 900), (sym_string_literal, STATE 989),
     (sym__string_literal_double_quotes, STATE 627),
     (sym__string_literal_single_quotes, STATE 627),
     (sym__string_literal_double_quotes_multiple, STATE 627),
     (sym__string_literal_single_quotes_multiple, STATE 627),
     (sym__raw_string_literal_double_quotes, STATE 627),
     (sym__raw_string_literal_single_quotes, STATE 627),
     (sym__raw_string_literal_double_quotes_multiple, STATE 627),
     (sym__raw_string_literal_single_quotes_multiple, STATE 627), (sym_list_literal, STATE 989),
     (sym_set_or_map_literal, STATE 989), (sym_pair, STATE 2660), (sym__element, STATE 2803),
     (sym_null_literal, STATE 989), (sym_record_literal, STATE 989),
     (sym__record_literal_no_const, STATE 924), (sym__expression, STATE 2688),
     (sym__real_expression, STATE 660), (sym_throw_expression, STATE 908),
     (sym_rethrow_expression, STATE 908), (sym_assignment_expression, STATE 908),
     (sym_assignable_expression, STATE 1940), (sym_function_expression, STATE 962),
     (sym_if_null_expression, STATE 1477), (sym_conditional_expression, STATE 1477),
     (sym_logical_or_expression, STATE 1477), (sym_logical_and_expression, STATE 1477),
     (sym_equality_expression, STATE 1477), (sym_type_cast_expression, STATE 1477),
     (sym_type_test_expression, STATE 1477), (sym_relational_expression, STATE 1477),
     (sym_bitwise_or_expression, STATE 1477), (sym_bitwise_xor_expression, STATE 1477),
     (sym_bitwise_and_expression, STATE 1477), (sym_shift_expression, STATE 1477),
     (sym_additive_expression, STATE 1477), (sym_multiplicative_expression, STATE 1477),
     (sym__unary_expression, STATE 1121), (sym_unary_expression, STATE 1303),
     (sym__postfix_expression, STATE 1303), (sym_postfix_expression, STATE 1301),
     (sym_spread_element, STATE 2660), (sym_prefix_operator, STATE 431),
     (sym_negation_operator, STATE 1450), (sym__exclamation_operator, STATE 1451),
     (sym_tilde_operator, STATE 1385), (sym_await_expression, STATE 1302),
     (sym_new_expression, STATE 962), (sym_const_object_expression, STATE 962),
     (sym__primary, STATE 668), (sym_parenthesized_expression, STATE 962),
     (sym_constructor_invocation, STATE 643), (sym_constructor_tearoff, STATE 962),
     (sym_type_arguments, STATE 3200), (sym_switch_expression, STATE 962),
     (sym__parenthesized_pattern, STATE 3182), (sym_list_pattern, STATE 3182),
     (sym_map_pattern, STATE 3182), (sym__map_pattern_entry, STATE 2986),
     (sym_record_pattern, STATE 3182), (sym_object_pattern, STATE 3182),
     (sym__outer_pattern, STATE 3410), (sym_pattern_assignment, STATE 908),
     (sym_if_element, STATE 2660), (sym_for_element, STATE 2660),
     (sym_type_parameters, STATE 2932), (sym__type_name, STATE 2661),
     (sym__formal_parameter_part, STATE 2339), (sym_formal_parameter_list, STATE 2020),
     (sym__strict_formal_parameter_list, STATE 2016), (sym__new_builtin, STATE 2079),
     (sym_this, STATE 962), (sym_super, STATE 1337), (sym_comment, STATE 74),
     (sym_documentation_comment, STATE 74), (aux_sym_string_literal_repeat1, STATE 474),
     (sym_identifier, ACTIONS 494), (anon_sym_POUND, ACTIONS 73),
     (sym_decimal_integer_literal, ACTIONS 75), (sym_hex_integer_literal, ACTIONS 77),
     (sym_decimal_floating_point_literal, ACTIONS 75), (anon_sym_true, ACTIONS 79),
     (anon_sym_false, ACTIONS 81), (anon_sym_DQUOTE, ACTIONS 83), (anon_sym_SQUOTE, ACTIONS 85),
     (anon_sym_DQUOTE_DQUOTE_DQUOTE, ACTIONS 87), (anon_sym_SQUOTE_SQUOTE_SQUOTE, ACTIONS 89),
     (anon_sym_r_DQUOTE, ACTIONS 91), (anon_sym_r_SQUOTE, ACTIONS 93),
     (anon_sym_r_DQUOTE_DQUOTE_DQUOTE, ACTIONS 95),
     (anon_sym_r_SQUOTE_SQUOTE_SQUOTE, ACTIONS 97), (anon_sym_LBRACE, ACTIONS 442),
     (anon_sym_RBRACE, ACTIONS 502), (anon_sym_LBRACK, ACTIONS 103),
     (anon_sym_null, ACTIONS 105), (anon_sym_LPAREN, ACTIONS 498), (anon_sym_throw, ACTIONS 109),
     (anon_sym_LT, ACTIONS 111), (sym_increment_operator, ACTIONS 113),
     (anon_sym_DOT_DOT_DOT, ACTIONS 115), (sym_minus_operator, ACTIONS 117),
     (anon_sym_BANG, ACTIONS 119), (anon_sym_TILDE, ACTIONS 121), (anon_sym_await, ACTIONS 410),
     (anon_sym_switch, ACTIONS 412), (anon_sym_if, ACTIONS 414), (anon_sym_for, ACTIONS 416),
     (sym_rethrow_builtin, ACTIONS 151), (anon_sym_new, ACTIONS 155),
     (sym_const_builtin, ACTIONS 478), (anon_sym_this, ACTIONS 159),
     (anon_sym_super, ACTIONS 161), (anon_sym_SLASH_SLASH, ACTIONS 3),
     (anon_sym_SLASH_STAR, ACTIONS 5), (anon_sym_SLASH_SLASH_SLASH, ACTIONS 7),
     (sym__block_comment, ACTIONS 9), (sym__documentation_block_comment, ACTIONS 11)]"

lemma row_ok_74: "table_row_ok 74 ts_parse_table_74"
  by (simp add: row_simps ts_parse_table_74_def)

definition ts_parse_table_75 :: table_row where
  "ts_parse_table_75 = [
     (sym__bool_literal, STATE 989), (sym__numeric_literal, STATE 989),
     (sym__literal, STATE 962), (sym_symbol_literal, STATE 989), (sym_true, STATE 900),
     (sym_false, STATE 900), (sym_string_literal, STATE 989),
     (sym__string_literal_double_quotes, STATE 627),
     (sym__string_literal_single_quotes, STATE 627),
     (sym__string_literal_double_quotes_multiple, STATE 627),
     (sym__string_literal_single_quotes_multiple, STATE 627),
     (sym__raw_string_literal_double_quotes, STATE 627),
     (sym__raw_string_literal_single_quotes, STATE 627),
     (sym__raw_string_literal_double_quotes_multiple, STATE 627),
     (sym__raw_string_literal_single_quotes_multiple, STATE 627), (sym_list_literal, STATE 989),
     (sym_set_or_map_literal, STATE 989), (sym_pair, STATE 2660), (sym__element, STATE 2817),
     (sym_null_literal, STATE 989), (sym_record_literal, STATE 989),
     (sym__record_literal_no_const, STATE 924), (sym__expression, STATE 2688),
     (sym__real_expression, STATE 660), (sym_throw_expression, STATE 908),
     (sym_rethrow_expression, STATE 908), (sym_assignment_expression, STATE 908),
     (sym_assignable_expression, STATE 1940), (sym_function_expression, STATE 962),
     (sym_if_null_expression, STATE 1477), (sym_conditional_expression, STATE 1477),
     (sym_logical_or_expression, STATE 1477), (sym_logical_and_expression, STATE 1477),
     (sym_equality_expression, STATE 1477), (sym_type_cast_expression, STATE 1477),
     (sym_type_test_expression, STATE 1477), (sym_relational_expression, STATE 1477),
     (sym_bitwise_or_expression, STATE 1477), (sym_bitwise_xor_expression, STATE 1477),
     (sym_bitwise_and_expression, STATE 1477), (sym_shift_expression, STATE 1477),
     (sym_additive_expression, STATE 1477), (sym_multiplicative_expression, STATE 1477),
     (sym__unary_expression, STATE 1121), (sym_unary_expression, STATE 1303),
     (sym__postfix_expression, STATE 1303), (sym_postfix_expression, STATE 1301),
     (sym_spread_element, STATE 2660), (sym_prefix_operator, STATE 431),
     (sym_negation_operator, STATE 1450), (sym__exclamation_operator, STATE 1451),
     (sym_tilde_operator, STATE 1385), (sym_await_expression, STATE 1302),
     (sym_new_expression, STATE 962), (sym_const_object_expression, STATE 962),
     (sym__primary, STATE 668), (sym_parenthesized_expression, STATE 962),
     (sym_constructor_invocation, STATE 643), (sym_constructor_tearoff, STATE 962),
     (sym_type_arguments, STATE 3200), (sym_switch_expression, STATE 962),
     (sym__parenthesized_pattern, STATE 3182), (sym_list_pattern, STATE 3182),
     (sym_map_pattern, STATE 3182), (sym__map_pattern_entry, STATE 2798),
     (sym_record_pattern, STATE 3182), (sym_object_pattern, STATE 3182),
     (sym__outer_pattern, STATE 3410), (sym_pattern_assignment, STATE 908),
     (sym_if_element, STATE 2660), (sym_for_element, STATE 2660),
     (sym_type_parameters, STATE 2932), (sym__type_name, STATE 2661),
     (sym__formal_parameter_part, STATE 2339), (sym_formal_parameter_list, STATE 2020),
     (sym__strict_formal_parameter_list, STATE 2016), (sym__new_builtin, STATE 2079),
     (sym_this, STATE 962), (sym_super, STATE 1337), (sym_comment, STATE 75),
     (sym_documentation_comment, STATE 75), (aux_sym_string_literal_repeat1, STATE 474),
     (sym_identifier, ACTIONS 494), (anon_sym_POUND, ACTIONS 73),
     (sym_decimal_integer_literal, ACTIONS 75), (sym_hex_integer_literal, ACTIONS 77),
     (sym_decimal_floating_point_literal, ACTIONS 75), (anon_sym_true, ACTIONS 79),
     (anon_sym_false, ACTIONS 81), (anon_sym_DQUOTE, ACTIONS 83), (anon_sym_SQUOTE, ACTIONS 85),
     (anon_sym_DQUOTE_DQUOTE_DQUOTE, ACTIONS 87), (anon_sym_SQUOTE_SQUOTE_SQUOTE, ACTIONS 89),
     (anon_sym_r_DQUOTE, ACTIONS 91), (anon_sym_r_SQUOTE, ACTIONS 93),
     (anon_sym_r_DQUOTE_DQUOTE_DQUOTE, ACTIONS 95),
     (anon_sym_r_SQUOTE_SQUOTE_SQUOTE, ACTIONS 97), (anon_sym_LBRACE, ACTIONS 442),
     (anon_sym_RBRACE, ACTIONS 448), (anon_sym_LBRACK, ACTIONS 103),
     (anon_sym_null, ACTIONS 105), (anon_sym_LPAREN, ACTIONS 498), (anon_sym_throw, ACTIONS 109),
     (anon_sym_LT, ACTIONS 111), (sym_increment_operator, ACTIONS 113),
     (anon_sym_DOT_DOT_DOT, ACTIONS 115), (sym_minus_operator, ACTIONS 117),
     (anon_sym_BANG, ACTIONS 119), (anon_sym_TILDE, ACTIONS 121), (anon_sym_await, ACTIONS 410),
     (anon_sym_switch, ACTIONS 412), (anon_sym_if, ACTIONS 414), (anon_sym_for, ACTIONS 416),
     (sym_rethrow_builtin, ACTIONS 151), (anon_sym_new, ACTIONS 155),
     (sym_const_builtin, ACTIONS 478), (anon_sym_this, ACTIONS 159),
     (anon_sym_super, ACTIONS 161), (anon_sym_SLASH_SLASH, ACTIONS 3),
     (anon_sym_SLASH_STAR, ACTIONS 5), (anon_sym_SLASH_SLASH_SLASH, ACTIONS 7),
     (sym__block_comment, ACTIONS 9), (sym__documentation_block_comment, ACTIONS 11)]"

lemma row_ok_75: "table_row_ok 75 ts_parse_table_75"
  by (simp add: row_simps ts_parse_table_75_def)

definition ts_parse_table_76 :: table_row where
  "ts_parse_table_76 = [
     (sym__bool_literal, STATE 989), (sym__numeric_literal, STATE 989),
     (sym__literal, STATE 962), (sym_symbol_literal, STATE 989), (sym_true, STATE 900),
     (sym_false, STATE 900), (sym_string_literal, STATE 989),
     (sym__string_literal_double_quotes, STATE 627),
     (sym__string_literal_single_quotes, STATE 627),
     (sym__string_literal_double_quotes_multiple, STATE 627),
     (sym__string_literal_single_quotes_multiple, STATE 627),
     (sym__raw_string_literal_double_quotes, STATE 627),
     (sym__raw_string_literal_single_quotes, STATE 627),
     (sym__raw_string_literal_double_quotes_multiple, STATE 627),
     (sym__raw_string_literal_single_quotes_multiple, STATE 627), (sym_list_literal, STATE 989),
     (sym_set_or_map_literal, STATE 989), (sym_pair, STATE 2660), (sym__element, STATE 2817),
     (sym_null_literal, STATE 989), (sym_record_literal, STATE 989),
     (sym__record_literal_no_const, STATE 924), (sym__expression, STATE 2688),
     (sym__real_expression, STATE 660), (sym_throw_expression, STATE 908),
     (sym_rethrow_expression, STATE 908), (sym_assignment_expression, STATE 908),
     (sym_assignable_expression, STATE 1940), (sym_function_expression, STATE 962),
     (sym_if_null_expression, STATE 1477), (sym_conditional_expression, STATE 1477),
     (sym_logical_or_expression, STATE 1477), (sym_logical_and_expression, STATE 1477),
     (sym_equality_expression, STATE 1477), (sym_type_cast_expression, STATE 1477),
     (sym_type_test_expression, STATE 1477), (sym_relational_expression, STATE 1477),
     (sym_bitwise_or_expression, STATE 1477), (sym_bitwise_xor_expression, STATE 1477),
     (sym_bitwise_and_expression, STATE 1477), (sym_shift_expression, STATE 1477),
     (sym_additive_expression, STATE 1477), (sym_multiplicative_expression, STATE 1477),
     (sym__unary_expression, STATE 1121), (sym_unary_expression, STATE 1303),
     (sym__postfix_expression, STATE 1303), (sym_postfix_expression, STATE 1301),
     (sym_spread_element, STATE 2660), (sym_prefix_operator, STATE 431),
     (sym_negation_operator, STATE 1450), (sym__exclamation_operator, STATE 1451),
     (sym_tilde_operator, STATE 1385), (sym_await_expression, STATE 1302),
     (sym_new_expression, STATE 962), (sym_const_object_expression, STATE 962),
     (sym__primary, STATE 668), (sym_parenthesized_expression, STATE 962),
     (sym_constructor_invocation, STATE 643), (sym_constructor_tearoff, STATE 962),
     (sym_type_arguments, STATE 3200), (sym_switch_expression, STATE 962),
     (sym__parenthesized_pattern, STATE 3182), (sym_list_pattern, STATE 3182),
     (sym_map_pattern, STATE 3182), (sym__map_pattern_entry, STATE 2798),
     (sym_record_pattern, STATE 3182), (sym_object_pattern, STATE 3182),
     (sym__outer_pattern, STATE 3410), (sym_pattern_assignment, STATE 908),
     (sym_if_element, STATE 2660), (sym_for_element, STATE 2660),
     (sym_type_parameters, STATE 2932), (sym__type_name, STATE 2661),
     (sym__formal_parameter_part, STATE 2339), (sym_formal_parameter_list, STATE 2020),
     (sym__strict_formal_parameter_list, STATE 2016), (sym__new_builtin, STATE 2079),
     (sym_this, STATE 962), (sym_super, STATE 1337), (sym_comment, STATE 76),
     (sym_documentation_comment, STATE 76), (aux_sym_string_literal_repeat1, STATE 474),
     (sym_identifier, ACTIONS 494), (anon_sym_POUND, ACTIONS 73),
     (sym_decimal_integer_literal, ACTIONS 75), (sym_hex_integer_literal, ACTIONS 77),
     (sym_decimal_floating_point_literal, ACTIONS 75), (anon_sym_true, ACTIONS 79),
     (anon_sym_false, ACTIONS 81), (anon_sym_DQUOTE, ACTIONS 83), (anon_sym_SQUOTE, ACTIONS 85),
     (anon_sym_DQUOTE_DQUOTE_DQUOTE, ACTIONS 87), (anon_sym_SQUOTE_SQUOTE_SQUOTE, ACTIONS 89),
     (anon_sym_r_DQUOTE, ACTIONS 91), (anon_sym_r_SQUOTE, ACTIONS 93),
     (anon_sym_r_DQUOTE_DQUOTE_DQUOTE, ACTIONS 95),
     (anon_sym_r_SQUOTE_SQUOTE_SQUOTE, ACTIONS 97), (anon_sym_LBRACE, ACTIONS 442),
     (anon_sym_RBRACE, ACTIONS 444), (anon_sym_LBRACK, ACTIONS 103),
     (anon_sym_null, ACTIONS 105), (anon_sym_LPAREN, ACTIONS 498), (anon_sym_throw, ACTIONS 109),
     (anon_sym_LT, ACTIONS 111), (sym_increment_operator, ACTIONS 113),
     (anon_sym_DOT_DOT_DOT, ACTIONS 115), (sym_minus_operator, ACTIONS 117),
     (anon_sym_BANG, ACTIONS 119), (anon_sym_TILDE, ACTIONS 121), (anon_sym_await, ACTIONS 410),
     (anon_sym_switch, ACTIONS 412), (anon_sym_if, ACTIONS 414), (anon_sym_for, ACTIONS 416),
     (sym_rethrow_builtin, ACTIONS 151), (anon_sym_new, ACTIONS 155),
     (sym_const_builtin, ACTIONS 478), (anon_sym_this, ACTIONS 159),
     (anon_sym_super, ACTIONS 161), (anon_sym_SLASH_SLASH, ACTIONS 3),
     (anon_sym_SLASH_STAR, ACTIONS 5), (anon_sym_SLASH_SLASH_SLASH, ACTIONS 7),
     (sym__block_comment, ACTIONS 9), (sym__documentation_block_comment, ACTIONS 11)]"

lemma row_ok_76: "table_row_ok 76 ts_parse_table_76"
  by (simp add: row_simps ts_parse_table_76_def)

definition ts_parse_table_77 :: table_row where
  "ts_parse_table_77 = [
     (sym__bool_literal, STATE 989), (sym__numeric_literal, STATE 989),
     (sym__literal, STATE 962), (sym_symbol_literal, STATE 989), (sym_true, STATE 900),
     (sym_false, STATE 900), (sym_string_literal, STATE 989),
     (sym__string_literal_double_quotes, STATE 627),
     (sym__string_literal_single_quotes, STATE 627),
     (sym__string_literal_double_quotes_multiple, STATE 627),
     (sym__string_literal_single_quotes_multiple, STATE 627),
     (sym__raw_string_literal_double_quotes, STATE 627),
     (sym__raw_string_literal_single_quotes, STATE 627),
     (sym__raw_string_literal_double_quotes_multiple, STATE 627),
     (sym__raw_string_literal_single_quotes_multiple, STATE 627), (sym_list_literal, STATE 989),
     (sym_set_or_map_literal, STATE 989), (sym_pair, STATE 2660), (sym__element, STATE 2953),
     (sym_null_literal, STATE 989), (sym_record_literal, STATE 989),
     (sym__record_literal_no_const, STATE 924), (sym__expression, STATE 2688),
     (sym__real_expression, STATE 660), (sym_throw_expression, STATE 908),
     (sym_rethrow_expression, STATE 908), (sym_assignment_expression, STATE 908),
     (sym_assignable_expression, STATE 1940), (sym_function_expression, STATE 962),
     (sym_if_null_expression, STATE 1477), (sym_conditional_expression, STATE 1477),
     (sym_logical_or_expression, STATE 1477), (sym_logical_and_expression, STATE 1477),
     (sym_equality_expression, STATE 1477), (sym_type_cast_expression, STATE 1477),
     (sym_type_test_expression, STATE 1477), (sym_relational_expression, STATE 1477),
     (sym_bitwise_or_expression, STATE 1477), (sym_bitwise_xor_expression, STATE 1477),
     (sym_bitwise_and_expression, STATE 1477), (sym_shift_expression, STATE 1477),
     (sym_additive_expression, STATE 1477), (sym_multiplicative_expression, STATE 1477),
     (sym__unary_expression, STATE 1121), (sym_unary_expression, STATE 1303),
     (sym__postfix_expression, STATE 1303), (sym_postfix_expression, STATE 1301),
     (sym_spread_element, STATE 2660), (sym_prefix_operator, STATE 431),
     (sym_negation_operator, STATE 1450), (sym__exclamation_operator, STATE 1451),
     (sym_tilde_operator, STATE 1385), (sym_await_expression, STATE 1302),
     (sym_new_expression, STATE 962), (sym_const_object_expression, STATE 962),
     (sym__primary, STATE 668), (sym_parenthesized_expression, STATE 962),
     (sym_constructor_invocation, STATE 643), (sym_constructor_tearoff, STATE 962),
     (sym_type_arguments, STATE 3200), (sym_switch_expression, STATE 962),
     (sym__parenthesized_pattern, STATE 3182), (sym_list_pattern, STATE 3182),
     (sym_map_pattern, STATE 3182), (sym__map_pattern_entry, STATE 2986),
     (sym_record_pattern, STATE 3182), (sym_object_pattern, STATE 3182),
     (sym__outer_pattern, STATE 3410), (sym_pattern_assignment, STATE 908),
     (sym_if_element, STATE 2660), (sym_for_element, STATE 2660),
     (sym_type_parameters, STATE 2932), (sym__type_name, STATE 2661),
     (sym__formal_parameter_part, STATE 2339), (sym_formal_parameter_list, STATE 2020),
     (sym__strict_formal_parameter_list, STATE 2016), (sym__new_builtin, STATE 2079),
     (sym_this, STATE 962), (sym_super, STATE 1337), (sym_comment, STATE 77),
     (sym_documentation_comment, STATE 77), (aux_sym_string_literal_repeat1, STATE 474),
     (sym_identifier, ACTIONS 494), (anon_sym_POUND, ACTIONS 73),
     (sym_decimal_integer_literal, ACTIONS 75), (sym_hex_integer_literal, ACTIONS 77),
     (sym_decimal_floating_point_literal, ACTIONS 75), (anon_sym_true, ACTIONS 79),
     (anon_sym_false, ACTIONS 81), (anon_sym_DQUOTE, ACTIONS 83), (anon_sym_SQUOTE, ACTIONS 85),
     (anon_sym_DQUOTE_DQUOTE_DQUOTE, ACTIONS 87), (anon_sym_SQUOTE_SQUOTE_SQUOTE, ACTIONS 89),
     (anon_sym_r_DQUOTE, ACTIONS 91), (anon_sym_r_SQUOTE, ACTIONS 93),
     (anon_sym_r_DQUOTE_DQUOTE_DQUOTE, ACTIONS 95),
     (anon_sym_r_SQUOTE_SQUOTE_SQUOTE, ACTIONS 97), (anon_sym_LBRACE, ACTIONS 442),
     (anon_sym_RBRACE, ACTIONS 504), (anon_sym_LBRACK, ACTIONS 103),
     (anon_sym_null, ACTIONS 105), (anon_sym_LPAREN, ACTIONS 498), (anon_sym_throw, ACTIONS 109),
     (anon_sym_LT, ACTIONS 111), (sym_increment_operator, ACTIONS 113),
     (anon_sym_DOT_DOT_DOT, ACTIONS 115), (sym_minus_operator, ACTIONS 117),
     (anon_sym_BANG, ACTIONS 119), (anon_sym_TILDE, ACTIONS 121), (anon_sym_await, ACTIONS 410),
     (anon_sym_switch, ACTIONS 412), (anon_sym_if, ACTIONS 414), (anon_sym_for, ACTIONS 416),
     (sym_rethrow_builtin, ACTIONS 151), (anon_sym_new, ACTIONS 155),
     (sym_const_builtin, ACTIONS 478), (anon_sym_this, ACTIONS 159),
     (anon_sym_super, ACTIONS 161), (anon_sym_SLASH_SLASH, ACTIONS 3),
     (anon_sym_SLASH_STAR, ACTIONS 5), (anon_sym_SLASH_SLASH_SLASH, ACTIONS 7),
     (sym__block_comment, ACTIONS 9), (sym__documentation_block_comment, ACTIONS 11)]"

lemma row_ok_77: "table_row_ok 77 ts_parse_table_77"
  by (simp add: row_simps ts_parse_table_77_def)

definition ts_parse_table_78 :: table_row where
  "ts_parse_table_78 = [
     (sym__bool_literal, STATE 989), (sym__numeric_literal, STATE 989),
     (sym__literal, STATE 962), (sym_symbol_literal, STATE 989), (sym_true, STATE 900),
     (sym_false, STATE 900), (sym_string_literal, STATE 989),
     (sym__string_literal_double_quotes, STATE 627),
     (sym__string_literal_single_quotes, STATE 627),
     (sym__string_literal_double_quotes_multiple, STATE 627),
     (sym__string_literal_single_quotes_multiple, STATE 627),
     (sym__raw_string_literal_double_quotes, STATE 627),
     (sym__raw_string_literal_single_quotes, STATE 627),
     (sym__raw_string_literal_double_quotes_multiple, STATE 627),
     (sym__raw_string_literal_single_quotes_multiple, STATE 627), (sym_list_literal, STATE 989),
     (sym_set_or_map_literal, STATE 989), (sym_pair, STATE 2660), (sym__element, STATE 2838),
     (sym_null_literal, STATE 989), (sym_record_literal, STATE 989),
     (sym__record_literal_no_const, STATE 924), (sym__expression, STATE 2562),
     (sym__real_expression, STATE 660), (sym_throw_expression, STATE 908),
     (sym_rethrow_expression, STATE 908), (sym_assignment_expression, STATE 908),
     (sym_assignable_expression, STATE 1940), (sym_function_expression, STATE 962),
     (sym_if_null_expression, STATE 1477), (sym_conditional_expression, STATE 1477),
     (sym_logical_or_expression, STATE 1477), (sym_logical_and_expression, STATE 1477),
     (sym_equality_expression, STATE 1477), (sym_type_cast_expression, STATE 1477),
     (sym_type_test_expression, STATE 1477), (sym_relational_expression, STATE 1477),
     (sym_bitwise_or_expression, STATE 1477), (sym_bitwise_xor_expression, STATE 1477),
     (sym_bitwise_and_expression, STATE 1477), (sym_shift_expression, STATE 1477),
     (sym_additive_expression, STATE 1477), (sym_multiplicative_expression, STATE 1477),
     (sym__unary_expression, STATE 1121), (sym_unary_expression, STATE 1303),
     (sym__postfix_expression, STATE 1303), (sym_postfix_expression, STATE 1301),
     (sym_spread_element, STATE 2660), (sym_prefix_operator, STATE 431),
     (sym_negation_operator, STATE 1450), (sym__exclamation_operator, STATE 1451),
     (sym_tilde_operator, STATE 1385), (sym_await_expression, STATE 1302),
     (sym_new_expression, STATE 962), (sym_const_object_expression, STATE 962),
     (sym__primary, STATE 668), (sym_parenthesized_expression, STATE 962),
     (sym_constructor_invocation, STATE 643), (sym_constructor_tearoff, STATE 962),
     (sym_type_arguments, STATE 3200), (sym_switch_expression, STATE 962),
     (sym__parenthesized_pattern, STATE 3182), (sym_list_pattern, STATE 3182),
     (sym_map_pattern, STATE 3182), (sym_record_pattern, STATE 3182),
     (sym_object_pattern, STATE 3182), (sym__outer_pattern, STATE 3410),
     (sym_pattern_assignment, STATE 908), (sym_if_element, STATE 2660),
     (sym_for_element, STATE 2660), (sym_type_parameters, STATE 2932),
     (sym__type_name, STATE 2661), (sym__formal_parameter_part, STATE 2339),
     (sym_formal_parameter_list, STATE 2020), (sym__strict_formal_parameter_list, STATE 2016),
     (sym__new_builtin, STATE 2079), (sym_this, STATE 962), (sym_super, STATE 1337),
     (sym_comment, STATE 78), (sym_documentation_comment, STATE 78),
     (aux_sym_string_literal_repeat1, STATE 474), (sym_identifier, ACTIONS 494),
     (anon_sym_POUND, ACTIONS 73), (sym_decimal_integer_literal, ACTIONS 75),
     (sym_hex_integer_literal, ACTIONS 77), (sym_decimal_floating_point_literal, ACTIONS 75),
     (anon_sym_true, ACTIONS 79), (anon_sym_false, ACTIONS 81), (anon_sym_DQUOTE, ACTIONS 83),
     (anon_sym_SQUOTE, ACTIONS 85), (anon_sym_DQUOTE_DQUOTE_DQUOTE, ACTIONS 87),
     (anon_sym_SQUOTE_SQUOTE_SQUOTE, ACTIONS 89), (anon_sym_r_DQUOTE, ACTIONS 91),
     (anon_sym_r_SQUOTE, ACTIONS 93), (anon_sym_r_DQUOTE_DQUOTE_DQUOTE, ACTIONS 95),
     (anon_sym_r_SQUOTE_SQUOTE_SQUOTE, ACTIONS 97), (anon_sym_LBRACE, ACTIONS 442),
     (anon_sym_LBRACK, ACTIONS 103), (anon_sym_RBRACK, ACTIONS 506),
     (anon_sym_null, ACTIONS 105), (anon_sym_LPAREN, ACTIONS 498), (anon_sym_throw, ACTIONS 109),
     (anon_sym_LT, ACTIONS 111), (sym_increment_operator, ACTIONS 113),
     (anon_sym_DOT_DOT_DOT, ACTIONS 167), (sym_minus_operator, ACTIONS 117),
     (anon_sym_BANG, ACTIONS 119), (anon_sym_TILDE, ACTIONS 121), (anon_sym_await, ACTIONS 410),
     (anon_sym_switch, ACTIONS 412), (anon_sym_if, ACTIONS 414), (anon_sym_for, ACTIONS 416),
     (sym_rethrow_builtin, ACTIONS 151), (anon_sym_new, ACTIONS 155),
     (sym_const_builtin, ACTIONS 478), (anon_sym_this, ACTIONS 159),
     (anon_sym_super, ACTIONS 161), (anon_sym_SLASH_SLASH, ACTIONS 3),
     (anon_sym_SLASH_STAR, ACTIONS 5), (anon_sym_SLASH_SLASH_SLASH, ACTIONS 7),
     (sym__block_comment, ACTIONS 9), (sym__documentation_block_comment, ACTIONS 11)]"

lemma row_ok_78: "table_row_ok 78 ts_parse_table_78"
  by (simp add: row_simps ts_parse_table_78_def)

definition ts_parse_table_79 :: table_row where
  "ts_parse_table_79 = [
     (sym__bool_literal, STATE 989), (sym__numeric_literal, STATE 989),
     (sym__literal, STATE 962), (sym_symbol_literal, STATE 989), (sym_true, STATE 900),
     (sym_false, STATE 900), (sym_string_literal, STATE 989),
     (sym__string_literal_double_quotes, STATE 627),
     (sym__string_literal_single_quotes, STATE 627),
     (sym__string_literal_double_quotes_multiple, STATE 627),
     (sym__string_literal_single_quotes_multiple, STATE 627),
     (sym__raw_string_literal_double_quotes, STATE 627),
     (sym__raw_string_literal_single_quotes, STATE 627),
     (sym__raw_string_literal_double_quotes_multiple, STATE 627),
     (sym__raw_string_literal_single_quotes_multiple, STATE 627), (sym_list_literal, STATE 989),
     (sym_set_or_map_literal, STATE 989), (sym_pair, STATE 2660), (sym__element, STATE 2838),
     (sym_null_literal, STATE 989), (sym_record_literal, STATE 989),
     (sym__record_literal_no_const, STATE 924), (sym__expression, STATE 2562),
     (sym__real_expression, STATE 660), (sym_throw_expression, STATE 908),
     (sym_rethrow_expression, STATE 908), (sym_assignment_expression, STATE 908),
     (sym_assignable_expression, STATE 1940), (sym_function_expression, STATE 962),
     (sym_if_null_expression, STATE 1477), (sym_conditional_expression, STATE 1477),
     (sym_logical_or_expression, STATE 1477), (sym_logical_and_expression, STATE 1477),
     (sym_equality_expression, STATE 1477), (sym_type_cast_expression, STATE 1477),
     (sym_type_test_expression, STATE 1477), (sym_relational_expression, STATE 1477),
     (sym_bitwise_or_expression, STATE 1477), (sym_bitwise_xor_expression, STATE 1477),
     (sym_bitwise_and_expression, STATE 1477), (sym_shift_expression, STATE 1477),
     (sym_additive_expression, STATE 1477), (sym_multiplicative_expression, STATE 1477),
     (sym__unary_expression, STATE 1121), (sym_unary_expression, STATE 1303),
     (sym__postfix_expression, STATE 1303), (sym_postfix_expression, STATE 1301),
     (sym_spread_element, STATE 2660), (sym_prefix_operator, STATE 431),
     (sym_negation_operator, STATE 1450), (sym__exclamation_operator, STATE 1451),
     (sym_tilde_operator, STATE 1385), (sym_await_expression, STATE 1302),
     (sym_new_expression, STATE 962), (sym_const_object_expression, STATE 962),
     (sym__primary, STATE 668), (sym_parenthesized_expression, STATE 962),
     (sym_constructor_invocation, STATE 643), (sym_constructor_tearoff, STATE 962),
     (sym_type_arguments, STATE 3200), (sym_switch_expression, STATE 962),
     (sym__parenthesized_pattern, STATE 3182), (sym_list_pattern, STATE 3182),
     (sym_map_pattern, STATE 3182), (sym_record_pattern, STATE 3182),
     (sym_object_pattern, STATE 3182), (sym__outer_pattern, STATE 3410),
     (sym_pattern_assignment, STATE 908), (sym_if_element, STATE 2660),
     (sym_for_element, STATE 2660), (sym_type_parameters, STATE 2932),
     (sym__type_name, STATE 2661), (sym__formal_parameter_part, STATE 2339),
     (sym_formal_parameter_list, STATE 2020), (sym__strict_formal_parameter_list, STATE 2016),
     (sym__new_builtin, STATE 2079), (sym_this, STATE 962), (sym_super, STATE 1337),
     (sym_comment, STATE 79), (sym_documentation_comment, STATE 79),
     (aux_sym_string_literal_repeat1, STATE 474), (sym_identifier, ACTIONS 494),
     (anon_sym_POUND, ACTIONS 73), (sym_decimal_integer_literal, ACTIONS 75),
     (sym_hex_integer_literal, ACTIONS 77), (sym_decimal_floating_point_literal, ACTIONS 75),
     (anon_sym_true, ACTIONS 79), (anon_sym_false, ACTIONS 81), (anon_sym_DQUOTE, ACTIONS 83),
     (anon_sym_SQUOTE, ACTIONS 85), (anon_sym_DQUOTE_DQUOTE_DQUOTE, ACTIONS 87),
     (anon_sym_SQUOTE_SQUOTE_SQUOTE, ACTIONS 89), (anon_sym_r_DQUOTE, ACTIONS 91),
     (anon_sym_r_SQUOTE, ACTIONS 93), (anon_sym_r_DQUOTE_DQUOTE_DQUOTE, ACTIONS 95),
     (anon_sym_r_SQUOTE_SQUOTE_SQUOTE, ACTIONS 97), (anon_sym_LBRACE, ACTIONS 442),
     (anon_sym_RBRACE, ACTIONS 508), (anon_sym_LBRACK, ACTIONS 103),
     (anon_sym_null, ACTIONS 105), (anon_sym_LPAREN, ACTIONS 498), (anon_sym_throw, ACTIONS 109),
     (anon_sym_LT, ACTIONS 111), (sym_increment_operator, ACTIONS 113),
     (anon_sym_DOT_DOT_DOT, ACTIONS 167), (sym_minus_operator, ACTIONS 117),
     (anon_sym_BANG, ACTIONS 119), (anon_sym_TILDE, ACTIONS 121), (anon_sym_await, ACTIONS 410),
     (anon_sym_switch, ACTIONS 412), (anon_sym_if, ACTIONS 414), (anon_sym_for, ACTIONS 416),
     (sym_rethrow_builtin, ACTIONS 151), (anon_sym_new, ACTIONS 155),
     (sym_const_builtin, ACTIONS 478), (anon_sym_this, ACTIONS 159),
     (anon_sym_super, ACTIONS 161), (anon_sym_SLASH_SLASH, ACTIONS 3),
     (anon_sym_SLASH_STAR, ACTIONS 5), (anon_sym_SLASH_SLASH_SLASH, ACTIONS 7),
     (sym__block_comment, ACTIONS 9), (sym__documentation_block_comment, ACTIONS 11)]"

lemma row_ok_79: "table_row_ok 79 ts_parse_table_79"
  by (simp add: row_simps ts_parse_table_79_def)

definition ts_parse_table_80 :: table_row where
  "ts_parse_table_80 = [
     (sym__bool_literal, STATE 989), (sym__numeric_literal, STATE 989),
     (sym__literal, STATE 962), (sym_symbol_literal, STATE 989), (sym_true, STATE 900),
     (sym_false, STATE 900), (sym_string_literal, STATE 989),
     (sym__string_literal_double_quotes, STATE 627),
     (sym__string_literal_single_quotes, STATE 627),
     (sym__string_literal_double_quotes_multiple, STATE 627),
     (sym__string_literal_single_quotes_multiple, STATE 627),
     (sym__raw_string_literal_double_quotes, STATE 627),
     (sym__raw_string_literal_single_quotes, STATE 627),
     (sym__raw_string_literal_double_quotes_multiple, STATE 627),
     (sym__raw_string_literal_single_quotes_multiple, STATE 627), (sym_list_literal, STATE 989),
     (sym_set_or_map_literal, STATE 989), (sym_pair, STATE 2660), (sym__element, STATE 2784),
     (sym_null_literal, STATE 989), (sym_record_literal, STATE 989),
     (sym__record_literal_no_const, STATE 924), (sym__expression, STATE 2562),
     (sym__real_expression, STATE 660), (sym_throw_expression, STATE 908),
     (sym_rethrow_expression, STATE 908), (sym_assignment_expression, STATE 908),
     (sym_assignable_expression, STATE 1940), (sym_function_expression, STATE 962),
     (sym_if_null_expression, STATE 1477), (sym_conditional_expression, STATE 1477),
     (sym_logical_or_expression, STATE 1477), (sym_logical_and_expression, STATE 1477),
     (sym_equality_expression, STATE 1477), (sym_type_cast_expression, STATE 1477),
     (sym_type_test_expression, STATE 1477), (sym_relational_expression, STATE 1477),
     (sym_bitwise_or_expression, STATE 1477), (sym_bitwise_xor_expression, STATE 1477),
     (sym_bitwise_and_expression, STATE 1477), (sym_shift_expression, STATE 1477),
     (sym_additive_expression, STATE 1477), (sym_multiplicative_expression, STATE 1477),
     (sym__unary_expression, STATE 1121), (sym_unary_expression, STATE 1303),
     (sym__postfix_expression, STATE 1303), (sym_postfix_expression, STATE 1301),
     (sym_spread_element, STATE 2660), (sym_prefix_operator, STATE 431),
     (sym_negation_operator, STATE 1450), (sym__exclamation_operator, STATE 1451),
     (sym_tilde_operator, STATE 1385), (sym_await_expression, STATE 1302),
     (sym_new_expression, STATE 962), (sym_const_object_expression, STATE 962),
     (sym__primary, STATE 668), (sym_parenthesized_expression, STATE 962),
     (sym_constructor_invocation, STATE 643), (sym_constructor_tearoff, STATE 962),
     (sym_type_arguments, STATE 3200), (sym_switch_expression, STATE 962),
     (sym__parenthesized_pattern, STATE 3182), (sym_list_pattern, STATE 3182),
     (sym_map_pattern, STATE 3182), (sym_record_pattern, STATE 3182),
     (sym_object_pattern, STATE 3182), (sym__outer_pattern, STATE 3410),
     (sym_pattern_assignment, STATE 908), (sym_if_element, STATE 2660),
     (sym_for_element, STATE 2660), (sym_type_parameters, STATE 2932),
     (sym__type_name, STATE 2661), (sym__formal_parameter_part, STATE 2339),
     (sym_formal_parameter_list, STATE 2020), (sym__strict_formal_parameter_list, STATE 2016),
     (sym__new_builtin, STATE 2079), (sym_this, STATE 962), (sym_super, STATE 1337),
     (sym_comment, STATE 80), (sym_documentation_comment, STATE 80),
     (aux_sym_string_literal_repeat1, STATE 474), (sym_identifier, ACTIONS 494),
     (anon_sym_POUND, ACTIONS 73), (sym_decimal_integer_literal, ACTIONS 75),
     (sym_hex_integer_literal, ACTIONS 77), (sym_decimal_floating_point_literal, ACTIONS 75),
     (anon_sym_true, ACTIONS 79), (anon_sym_false, ACTIONS 81), (anon_sym_DQUOTE, ACTIONS 83),
     (anon_sym_SQUOTE, ACTIONS 85), (anon_sym_DQUOTE_DQUOTE_DQUOTE, ACTIONS 87),
     (anon_sym_SQUOTE_SQUOTE_SQUOTE, ACTIONS 89), (anon_sym_r_DQUOTE, ACTIONS 91),
     (anon_sym_r_SQUOTE, ACTIONS 93), (anon_sym_r_DQUOTE_DQUOTE_DQUOTE, ACTIONS 95),
     (anon_sym_r_SQUOTE_SQUOTE_SQUOTE, ACTIONS 97), (anon_sym_LBRACE, ACTIONS 442),
     (anon_sym_RBRACE, ACTIONS 510), (anon_sym_LBRACK, ACTIONS 103),
     (anon_sym_null, ACTIONS 105), (anon_sym_LPAREN, ACTIONS 498), (anon_sym_throw, ACTIONS 109),
     (anon_sym_LT, ACTIONS 111), (sym_increment_operator, ACTIONS 113),
     (anon_sym_DOT_DOT_DOT, ACTIONS 167), (sym_minus_operator, ACTIONS 117),
     (anon_sym_BANG, ACTIONS 119), (anon_sym_TILDE, ACTIONS 121), (anon_sym_await, ACTIONS 410),
     (anon_sym_switch, ACTIONS 412), (anon_sym_if, ACTIONS 414), (anon_sym_for, ACTIONS 416),
     (sym_rethrow_builtin, ACTIONS 151), (anon_sym_new, ACTIONS 155),
     (sym_const_builtin, ACTIONS 478), (anon_sym_this, ACTIONS 159),
     (anon_sym_super, ACTIONS 161), (anon_sym_SLASH_SLASH, ACTIONS 3),
     (anon_sym_SLASH_STAR, ACTIONS 5), (anon_sym_SLASH_SLASH_SLASH, ACTIONS 7),
     (sym__block_comment, ACTIONS 9), (sym__documentation_block_comment, ACTIONS 11)]"

lemma row_ok_80: "table_row_ok 80 ts_parse_table_80"
  by (simp add: row_simps ts_parse_table_80_def)

definition ts_parse_table_81 :: table_row where
  "ts_parse_table_81 = [
     (sym__bool_literal, STATE 989), (sym__numeric_literal, STATE 989),
     (sym__literal, STATE 962), (sym_symbol_literal, STATE 989), (sym_true, STATE 900),
     (sym_false, STATE 900), (sym_string_literal, STATE 989),
     (sym__string_literal_double_quotes, STATE 627),
     (sym__string_literal_single_quotes, STATE 627),
     (sym__string_literal_double_quotes_multiple, STATE 627),
     (sym__string_literal_single_quotes_multiple, STATE 627),
     (sym__raw_string_literal_double_quotes, STATE 627),
     (sym__raw_string_literal_single_quotes, STATE 627),
     (sym__raw_string_literal_double_quotes_multiple, STATE 627),
     (sym__raw_string_literal_single_quotes_multiple, STATE 627), (sym_list_literal, STATE 989),
     (sym_set_or_map_literal, STATE 989), (sym_pair, STATE 2660), (sym__element, STATE 2838),
     (sym_null_literal, STATE 989), (sym_record_literal, STATE 989),
     (sym__record_literal_no_const, STATE 924), (sym__expression, STATE 2562),
     (sym__real_expression, STATE 660), (sym_throw_expression, STATE 908),
     (sym_rethrow_expression, STATE 908), (sym_assignment_expression, STATE 908),
     (sym_assignable_expression, STATE 1940), (sym_function_expression, STATE 962),
     (sym_if_null_expression, STATE 1477), (sym_conditional_expression, STATE 1477),
     (sym_logical_or_expression, STATE 1477), (sym_logical_and_expression, STATE 1477),
     (sym_equality_expression, STATE 1477), (sym_type_cast_expression, STATE 1477),
     (sym_type_test_expression, STATE 1477), (sym_relational_expression, STATE 1477),
     (sym_bitwise_or_expression, STATE 1477), (sym_bitwise_xor_expression, STATE 1477),
     (sym_bitwise_and_expression, STATE 1477), (sym_shift_expression, STATE 1477),
     (sym_additive_expression, STATE 1477), (sym_multiplicative_expression, STATE 1477),
     (sym__unary_expression, STATE 1121), (sym_unary_expression, STATE 1303),
     (sym__postfix_expression, STATE 1303), (sym_postfix_expression, STATE 1301),
     (sym_spread_element, STATE 2660), (sym_prefix_operator, STATE 431),
     (sym_negation_operator, STATE 1450), (sym__exclamation_operator, STATE 1451),
     (sym_tilde_operator, STATE 1385), (sym_await_expression, STATE 1302),
     (sym_new_expression, STATE 962), (sym_const_object_expression, STATE 962),
     (sym__primary, STATE 668), (sym_parenthesized_expression, STATE 962),
     (sym_constructor_invocation, STATE 643), (sym_constructor_tearoff, STATE 962),
     (sym_type_arguments, STATE 3200), (sym_switch_expression, STATE 962),
     (sym__parenthesized_pattern, STATE 3182), (sym_list_pattern, STATE 3182),
     (sym_map_pattern, STATE 3182), (sym_record_pattern, STATE 3182),
     (sym_object_pattern, STATE 3182), (sym__outer_pattern, STATE 3410),
     (sym_pattern_assignment, STATE 908), (sym_if_element, STATE 2660),
     (sym_for_element, STATE 2660), (sym_type_parameters, STATE 2932),
     (sym__type_name, STATE 2661), (sym__formal_parameter_part, STATE 2339),
     (sym_formal_parameter_list, STATE 2020), (sym__strict_formal_parameter_list, STATE 2016),
     (sym__new_builtin, STATE 2079), (sym_this, STATE 962), (sym_super, STATE 1337),
     (sym_comment, STATE 81), (sym_documentation_comment, STATE 81),
     (aux_sym_string_literal_repeat1, STATE 474), (sym_identifier, ACTIONS 494),
     (anon_sym_POUND, ACTIONS 73), (sym_decimal_integer_literal, ACTIONS 75),
     (sym_hex_integer_literal, ACTIONS 77), (sym_decimal_floating_point_literal, ACTIONS 75),
     (anon_sym_true, ACTIONS 79), (anon_sym_false, ACTIONS 81), (anon_sym_DQUOTE, ACTIONS 83),
     (anon_sym_SQUOTE, ACTIONS 85), (anon_sym_DQUOTE_DQUOTE_DQUOTE, ACTIONS 87),
     (anon_sym_SQUOTE_SQUOTE_SQUOTE, ACTIONS 89), (anon_sym_r_DQUOTE, ACTIONS 91),
     (anon_sym_r_SQUOTE, ACTIONS 93), (anon_sym_r_DQUOTE_DQUOTE_DQUOTE, ACTIONS 95),
     (anon_sym_r_SQUOTE_SQUOTE_SQUOTE, ACTIONS 97), (anon_sym_LBRACE, ACTIONS 442),
     (anon_sym_LBRACK, ACTIONS 103), (anon_sym_RBRACK, ACTIONS 512),
     (anon_sym_null, ACTIONS 105), (anon_sym_LPAREN, ACTIONS 498), (anon_sym_throw, ACTIONS 109),
     (anon_sym_LT, ACTIONS 111), (sym_increment_operator, ACTIONS 113),
     (anon_sym_DOT_DOT_DOT, ACTIONS 167), (sym_minus_operator, ACTIONS 117),
     (anon_sym_BANG, ACTIONS 119), (anon_sym_TILDE, ACTIONS 121), (anon_sym_await, ACTIONS 410),
     (anon_sym_switch, ACTIONS 412), (anon_sym_if, ACTIONS 414), (anon_sym_for, ACTIONS 416),
     (sym_rethrow_builtin, ACTIONS 151), (anon_sym_new, ACTIONS 155),
     (sym_const_builtin, ACTIONS 478), (anon_sym_this, ACTIONS 159),
     (anon_sym_super, ACTIONS 161), (anon_sym_SLASH_SLASH, ACTIONS 3),
     (anon_sym_SLASH_STAR, ACTIONS 5), (anon_sym_SLASH_SLASH_SLASH, ACTIONS 7),
     (sym__block_comment, ACTIONS 9), (sym__documentation_block_comment, ACTIONS 11)]"

lemma row_ok_81: "table_row_ok 81 ts_parse_table_81"
  by (simp add: row_simps ts_parse_table_81_def)

definition ts_parse_table_82 :: table_row where
  "ts_parse_table_82 = [
     (sym__bool_literal, STATE 989), (sym__numeric_literal, STATE 989),
     (sym__literal, STATE 962), (sym_symbol_literal, STATE 989), (sym_true, STATE 900),
     (sym_false, STATE 900), (sym_string_literal, STATE 989),
     (sym__string_literal_double_quotes, STATE 627),
     (sym__string_literal_single_quotes, STATE 627),
     (sym__string_literal_double_quotes_multiple, STATE 627),
     (sym__string_literal_single_quotes_multiple, STATE 627),
     (sym__raw_string_literal_double_quotes, STATE 627),
     (sym__raw_string_literal_single_quotes, STATE 627),
     (sym__raw_string_literal_double_quotes_multiple, STATE 627),
     (sym__raw_string_literal_single_quotes_multiple, STATE 627), (sym_list_literal, STATE 989),
     (sym_set_or_map_literal, STATE 989), (sym_pair, STATE 2660), (sym__element, STATE 2838),
     (sym_null_literal, STATE 989), (sym_record_literal, STATE 989),
     (sym__record_literal_no_const, STATE 924), (sym__expression, STATE 2562),
     (sym__real_expression, STATE 660), (sym_throw_expression, STATE 908),
     (sym_rethrow_expression, STATE 908), (sym_assignment_expression, STATE 908),
     (sym_assignable_expression, STATE 1940), (sym_function_expression, STATE 962),
     (sym_if_null_expression, STATE 1477), (sym_conditional_expression, STATE 1477),
     (sym_logical_or_expression, STATE 1477), (sym_logical_and_expression, STATE 1477),
     (sym_equality_expression, STATE 1477), (sym_type_cast_expression, STATE 1477),
     (sym_type_test_expression, STATE 1477), (sym_relational_expression, STATE 1477),
     (sym_bitwise_or_expression, STATE 1477), (sym_bitwise_xor_expression, STATE 1477),
     (sym_bitwise_and_expression, STATE 1477), (sym_shift_expression, STATE 1477),
     (sym_additive_expression, STATE 1477), (sym_multiplicative_expression, STATE 1477),
     (sym__unary_expression, STATE 1121), (sym_unary_expression, STATE 1303),
     (sym__postfix_expression, STATE 1303), (sym_postfix_expression, STATE 1301),
     (sym_spread_element, STATE 2660), (sym_prefix_operator, STATE 431),
     (sym_negation_operator, STATE 1450), (sym__exclamation_operator, STATE 1451),
     (sym_tilde_operator, STATE 1385), (sym_await_expression, STATE 1302),
     (sym_new_expression, STATE 962), (sym_const_object_expression, STATE 962),
     (sym__primary, STATE 668), (sym_parenthesized_expression, STATE 962),
     (sym_constructor_invocation, STATE 643), (sym_constructor_tearoff, STATE 962),
     (sym_type_arguments, STATE 3200), (sym_switch_expression, STATE 962),
     (sym__parenthesized_pattern, STATE 3182), (sym_list_pattern, STATE 3182),
     (sym_map_pattern, STATE 3182), (sym_record_pattern, STATE 3182),
     (sym_object_pattern, STATE 3182), (sym__outer_pattern, STATE 3410),
     (sym_pattern_assignment, STATE 908), (sym_if_element, STATE 2660),
     (sym_for_element, STATE 2660), (sym_type_parameters, STATE 2932),
     (sym__type_name, STATE 2661), (sym__formal_parameter_part, STATE 2339),
     (sym_formal_parameter_list, STATE 2020), (sym__strict_formal_parameter_list, STATE 2016),
     (sym__new_builtin, STATE 2079), (sym_this, STATE 962), (sym_super, STATE 1337),
     (sym_comment, STATE 82), (sym_documentation_comment, STATE 82),
     (aux_sym_string_literal_repeat1, STATE 474), (sym_identifier, ACTIONS 494),
     (anon_sym_POUND, ACTIONS 73), (sym_decimal_integer_literal, ACTIONS 75),
     (sym_hex_integer_literal, ACTIONS 77), (sym_decimal_floating_point_literal, ACTIONS 75),
     (anon_sym_true, ACTIONS 79), (anon_sym_false, ACTIONS 81), (anon_sym_DQUOTE, ACTIONS 83),
     (anon_sym_SQUOTE, ACTIONS 85), (anon_sym_DQUOTE_DQUOTE_DQUOTE, ACTIONS 87),
     (anon_sym_SQUOTE_SQUOTE_SQUOTE, ACTIONS 89), (anon_sym_r_DQUOTE, ACTIONS 91),
     (anon_sym_r_SQUOTE, ACTIONS 93), (anon_sym_r_DQUOTE_DQUOTE_DQUOTE, ACTIONS 95),
     (anon_sym_r_SQUOTE_SQUOTE_SQUOTE, ACTIONS 97), (anon_sym_LBRACE, ACTIONS 442),
     (anon_sym_RBRACE, ACTIONS 510), (anon_sym_LBRACK, ACTIONS 103),
     (anon_sym_null, ACTIONS 105), (anon_sym_LPAREN, ACTIONS 498), (anon_sym_throw, ACTIONS 109),
     (anon_sym_LT, ACTIONS 111), (sym_increment_operator, ACTIONS 113),
     (anon_sym_DOT_DOT_DOT, ACTIONS 167), (sym_minus_operator, ACTIONS 117),
     (anon_sym_BANG, ACTIONS 119), (anon_sym_TILDE, ACTIONS 121), (anon_sym_await, ACTIONS 410),
     (anon_sym_switch, ACTIONS 412), (anon_sym_if, ACTIONS 414), (anon_sym_for, ACTIONS 416),
     (sym_rethrow_builtin, ACTIONS 151), (anon_sym_new, ACTIONS 155),
     (sym_const_builtin, ACTIONS 478), (anon_sym_this, ACTIONS 159),
     (anon_sym_super, ACTIONS 161), (anon_sym_SLASH_SLASH, ACTIONS 3),
     (anon_sym_SLASH_STAR, ACTIONS 5), (anon_sym_SLASH_SLASH_SLASH, ACTIONS 7),
     (sym__block_comment, ACTIONS 9), (sym__documentation_block_comment, ACTIONS 11)]"

lemma row_ok_82: "table_row_ok 82 ts_parse_table_82"
  by (simp add: row_simps ts_parse_table_82_def)

definition ts_parse_table_83 :: table_row where
  "ts_parse_table_83 = [
     (sym__bool_literal, STATE 989), (sym__numeric_literal, STATE 989),
     (sym__literal, STATE 962), (sym_symbol_literal, STATE 989), (sym_true, STATE 900),
     (sym_false, STATE 900), (sym_string_literal, STATE 989),
     (sym__string_literal_double_quotes, STATE 627),
     (sym__string_literal_single_quotes, STATE 627),
     (sym__string_literal_double_quotes_multiple, STATE 627),
     (sym__string_literal_single_quotes_multiple, STATE 627),
     (sym__raw_string_literal_double_quotes, STATE 627),
     (sym__raw_string_literal_single_quotes, STATE 627),
     (sym__raw_string_literal_double_quotes_multiple, STATE 627),
     (sym__raw_string_literal_single_quotes_multiple, STATE 627), (sym_list_literal, STATE 989),
     (sym_set_or_map_literal, STATE 989), (sym_pair, STATE 2660), (sym__element, STATE 2802),
     (sym_null_literal, STATE 989), (sym_record_literal, STATE 989),
     (sym__record_literal_no_const, STATE 924), (sym__expression, STATE 2562),
     (sym__real_expression, STATE 660), (sym_throw_expression, STATE 908),
     (sym_rethrow_expression, STATE 908), (sym_assignment_expression, STATE 908),
     (sym_assignable_expression, STATE 1940), (sym_function_expression, STATE 962),
     (sym_if_null_expression, STATE 1477), (sym_conditional_expression, STATE 1477),
     (sym_logical_or_expression, STATE 1477), (sym_logical_and_expression, STATE 1477),
     (sym_equality_expression, STATE 1477), (sym_type_cast_expression, STATE 1477),
     (sym_type_test_expression, STATE 1477), (sym_relational_expression, STATE 1477),
     (sym_bitwise_or_expression, STATE 1477), (sym_bitwise_xor_expression, STATE 1477),
     (sym_bitwise_and_expression, STATE 1477), (sym_shift_expression, STATE 1477),
     (sym_additive_expression, STATE 1477), (sym_multiplicative_expression, STATE 1477),
     (sym__unary_expression, STATE 1121), (sym_unary_expression, STATE 1303),
     (sym__postfix_expression, STATE 1303), (sym_postfix_expression, STATE 1301),
     (sym_spread_element, STATE 2660), (sym_prefix_operator, STATE 431),
     (sym_negation_operator, STATE 1450), (sym__exclamation_operator, STATE 1451),
     (sym_tilde_operator, STATE 1385), (sym_await_expression, STATE 1302),
     (sym_new_expression, STATE 962), (sym_const_object_expression, STATE 962),
     (sym__primary, STATE 668), (sym_parenthesized_expression, STATE 962),
     (sym_constructor_invocation, STATE 643), (sym_constructor_tearoff, STATE 962),
     (sym_type_arguments, STATE 3200), (sym_switch_expression, STATE 962),
     (sym__parenthesized_pattern, STATE 3182), (sym_list_pattern, STATE 3182),
     (sym_map_pattern, STATE 3182), (sym_record_pattern, STATE 3182),
     (sym_object_pattern, STATE 3182), (sym__outer_pattern, STATE 3410),
     (sym_pattern_assignment, STATE 908), (sym_if_element, STATE 2660),
     (sym_for_element, STATE 2660), (sym_type_parameters, STATE 2932),
     (sym__type_name, STATE 2661), (sym__formal_parameter_part, STATE 2339),
     (sym_formal_parameter_list, STATE 2020), (sym__strict_formal_parameter_list, STATE 2016),
     (sym__new_builtin, STATE 2079), (sym_this, STATE 962), (sym_super, STATE 1337),
     (sym_comment, STATE 83), (sym_documentation_comment, STATE 83),
     (aux_sym_string_literal_repeat1, STATE 474), (sym_identifier, ACTIONS 494),
     (anon_sym_POUND, ACTIONS 73), (sym_decimal_integer_literal, ACTIONS 75),
     (sym_hex_integer_literal, ACTIONS 77), (sym_decimal_floating_point_literal, ACTIONS 75),
     (anon_sym_true, ACTIONS 79), (anon_sym_false, ACTIONS 81), (anon_sym_DQUOTE, ACTIONS 83),
     (anon_sym_SQUOTE, ACTIONS 85), (anon_sym_DQUOTE_DQUOTE_DQUOTE, ACTIONS 87),
     (anon_sym_SQUOTE_SQUOTE_SQUOTE, ACTIONS 89), (anon_sym_r_DQUOTE, ACTIONS 91),
     (anon_sym_r_SQUOTE, ACTIONS 93), (anon_sym_r_DQUOTE_DQUOTE_DQUOTE, ACTIONS 95),
     (anon_sym_r_SQUOTE_SQUOTE_SQUOTE, ACTIONS 97), (anon_sym_LBRACE, ACTIONS 442),
     (anon_sym_LBRACK, ACTIONS 103), (anon_sym_RBRACK, ACTIONS 514),
     (anon_sym_null, ACTIONS 105), (anon_sym_LPAREN, ACTIONS 498), (anon_sym_throw, ACTIONS 109),
     (anon_sym_LT, ACTIONS 111), (sym_increment_operator, ACTIONS 113),
     (anon_sym_DOT_DOT_DOT, ACTIONS 167), (sym_minus_operator, ACTIONS 117),
     (anon_sym_BANG, ACTIONS 119), (anon_sym_TILDE, ACTIONS 121), (anon_sym_await, ACTIONS 410),
     (anon_sym_switch, ACTIONS 412), (anon_sym_if, ACTIONS 414), (anon_sym_for, ACTIONS 416),
     (sym_rethrow_builtin, ACTIONS 151), (anon_sym_new, ACTIONS 155),
     (sym_const_builtin, ACTIONS 478), (anon_sym_this, ACTIONS 159),
     (anon_sym_super, ACTIONS 161), (anon_sym_SLASH_SLASH, ACTIONS 3),
     (anon_sym_SLASH_STAR, ACTIONS 5), (anon_sym_SLASH_SLASH_SLASH, ACTIONS 7),
     (sym__block_comment, ACTIONS 9), (sym__documentation_block_comment, ACTIONS 11)]"

lemma row_ok_83: "table_row_ok 83 ts_parse_table_83"
  by (simp add: row_simps ts_parse_table_83_def)

definition ts_parse_table_84 :: table_row where
  "ts_parse_table_84 = [
     (sym__bool_literal, STATE 989), (sym__numeric_literal, STATE 989),
     (sym__literal, STATE 962), (sym_symbol_literal, STATE 989), (sym_true, STATE 900),
     (sym_false, STATE 900), (sym_string_literal, STATE 989),
     (sym__string_literal_double_quotes, STATE 627),
     (sym__string_literal_single_quotes, STATE 627),
     (sym__string_literal_double_quotes_multiple, STATE 627),
     (sym__string_literal_single_quotes_multiple, STATE 627),
     (sym__raw_string_literal_double_quotes, STATE 627),
     (sym__raw_string_literal_single_quotes, STATE 627),
     (sym__raw_string_literal_double_quotes_multiple, STATE 627),
     (sym__raw_string_literal_single_quotes_multiple, STATE 627), (sym_list_literal, STATE 989),
     (sym_set_or_map_literal, STATE 989), (sym_pair, STATE 2660), (sym__element, STATE 2803),
     (sym_null_literal, STATE 989), (sym_record_literal, STATE 989),
     (sym__record_literal_no_const, STATE 924), (sym__expression, STATE 2562),
     (sym__real_expression, STATE 660), (sym_throw_expression, STATE 908),
     (sym_rethrow_expression, STATE 908), (sym_assignment_expression, STATE 908),
     (sym_assignable_expression, STATE 1940), (sym_function_expression, STATE 962),
     (sym_if_null_expression, STATE 1477), (sym_conditional_expression, STATE 1477),
     (sym_logical_or_expression, STATE 1477), (sym_logical_and_expression, STATE 1477),
     (sym_equality_expression, STATE 1477), (sym_type_cast_expression, STATE 1477),
     (sym_type_test_expression, STATE 1477), (sym_relational_expression, STATE 1477),
     (sym_bitwise_or_expression, STATE 1477), (sym_bitwise_xor_expression, STATE 1477),
     (sym_bitwise_and_expression, STATE 1477), (sym_shift_expression, STATE 1477),
     (sym_additive_expression, STATE 1477), (sym_multiplicative_expression, STATE 1477),
     (sym__unary_expression, STATE 1121), (sym_unary_expression, STATE 1303),
     (sym__postfix_expression, STATE 1303), (sym_postfix_expression, STATE 1301),
     (sym_spread_element, STATE 2660), (sym_prefix_operator, STATE 431),
     (sym_negation_operator, STATE 1450), (sym__exclamation_operator, STATE 1451),
     (sym_tilde_operator, STATE 1385), (sym_await_expression, STATE 1302),
     (sym_new_expression, STATE 962), (sym_const_object_expression, STATE 962),
     (sym__primary, STATE 668), (sym_parenthesized_expression, STATE 962),
     (sym_constructor_invocation, STATE 643), (sym_constructor_tearoff, STATE 962),
     (sym_type_arguments, STATE 3200), (sym_switch_expression, STATE 962),
     (sym__parenthesized_pattern, STATE 3182), (sym_list_pattern, STATE 3182),
     (sym_map_pattern, STATE 3182), (sym_record_pattern, STATE 3182),
     (sym_object_pattern, STATE 3182), (sym__outer_pattern, STATE 3410),
     (sym_pattern_assignment, STATE 908), (sym_if_element, STATE 2660),
     (sym_for_element, STATE 2660), (sym_type_parameters, STATE 2932),
     (sym__type_name, STATE 2661), (sym__formal_parameter_part, STATE 2339),
     (sym_formal_parameter_list, STATE 2020), (sym__strict_formal_parameter_list, STATE 2016),
     (sym__new_builtin, STATE 2079), (sym_this, STATE 962), (sym_super, STATE 1337),
     (sym_comment, STATE 84), (sym_documentation_comment, STATE 84),
     (aux_sym_string_literal_repeat1, STATE 474), (sym_identifier, ACTIONS 494),
     (anon_sym_POUND, ACTIONS 73), (sym_decimal_integer_literal, ACTIONS 75),
     (sym_hex_integer_literal, ACTIONS 77), (sym_decimal_floating_point_literal, ACTIONS 75),
     (anon_sym_true, ACTIONS 79), (anon_sym_false, ACTIONS 81), (anon_sym_DQUOTE, ACTIONS 83),
     (anon_sym_SQUOTE, ACTIONS 85), (anon_sym_DQUOTE_DQUOTE_DQUOTE, ACTIONS 87),
     (anon_sym_SQUOTE_SQUOTE_SQUOTE, ACTIONS 89), (anon_sym_r_DQUOTE, ACTIONS 91),
     (anon_sym_r_SQUOTE, ACTIONS 93), (anon_sym_r_DQUOTE_DQUOTE_DQUOTE, ACTIONS 95),
     (anon_sym_r_SQUOTE_SQUOTE_SQUOTE, ACTIONS 97), (anon_sym_LBRACE, ACTIONS 442),
     (anon_sym_RBRACE, ACTIONS 516), (anon_sym_LBRACK, ACTIONS 103),
     (anon_sym_null, ACTIONS 105), (anon_sym_LPAREN, ACTIONS 498), (anon_sym_throw, ACTIONS 109),
     (anon_sym_LT, ACTIONS 111), (sym_increment_operator, ACTIONS 113),
     (anon_sym_DOT_DOT_DOT, ACTIONS 167), (sym_minus_operator, ACTIONS 117),
     (anon_sym_BANG, ACTIONS 119), (anon_sym_TILDE, ACTIONS 121), (anon_sym_await, ACTIONS 410),
     (anon_sym_switch, ACTIONS 412), (anon_sym_if, ACTIONS 414), (anon_sym_for, ACTIONS 416),
     (sym_rethrow_builtin, ACTIONS 151), (anon_sym_new, ACTIONS 155),
     (sym_const_builtin, ACTIONS 478), (anon_sym_this, ACTIONS 159),
     (anon_sym_super, ACTIONS 161), (anon_sym_SLASH_SLASH, ACTIONS 3),
     (anon_sym_SLASH_STAR, ACTIONS 5), (anon_sym_SLASH_SLASH_SLASH, ACTIONS 7),
     (sym__block_comment, ACTIONS 9), (sym__documentation_block_comment, ACTIONS 11)]"

lemma row_ok_84: "table_row_ok 84 ts_parse_table_84"
  by (simp add: row_simps ts_parse_table_84_def)

definition ts_parse_table_85 :: table_row where
  "ts_parse_table_85 = [
     (sym__bool_literal, STATE 989), (sym__numeric_literal, STATE 989),
     (sym__literal, STATE 962), (sym_symbol_literal, STATE 989), (sym_true, STATE 900),
     (sym_false, STATE 900), (sym_string_literal, STATE 989),
     (sym__string_literal_double_quotes, STATE 627),
     (sym__string_literal_single_quotes, STATE 627),
     (sym__string_literal_double_quotes_multiple, STATE 627),
     (sym__string_literal_single_quotes_multiple, STATE 627),
     (sym__raw_string_literal_double_quotes, STATE 627),
     (sym__raw_string_literal_single_quotes, STATE 627),
     (sym__raw_string_literal_double_quotes_multiple, STATE 627),
     (sym__raw_string_literal_single_quotes_multiple, STATE 627), (sym_list_literal, STATE 989),
     (sym_set_or_map_literal, STATE 989), (sym_pair, STATE 2660), (sym__element, STATE 2828),
     (sym_null_literal, STATE 989), (sym_record_literal, STATE 989),
     (sym__record_literal_no_const, STATE 924), (sym__expression, STATE 2562),
     (sym__real_expression, STATE 660), (sym_throw_expression, STATE 908),
     (sym_rethrow_expression, STATE 908), (sym_assignment_expression, STATE 908),
     (sym_assignable_expression, STATE 1940), (sym_function_expression, STATE 962),
     (sym_if_null_expression, STATE 1477), (sym_conditional_expression, STATE 1477),
     (sym_logical_or_expression, STATE 1477), (sym_logical_and_expression, STATE 1477),
     (sym_equality_expression, STATE 1477), (sym_type_cast_expression, STATE 1477),
     (sym_type_test_expression, STATE 1477), (sym_relational_expression, STATE 1477),
     (sym_bitwise_or_expression, STATE 1477), (sym_bitwise_xor_expression, STATE 1477),
     (sym_bitwise_and_expression, STATE 1477), (sym_shift_expression, STATE 1477),
     (sym_additive_expression, STATE 1477), (sym_multiplicative_expression, STATE 1477),
     (sym__unary_expression, STATE 1121), (sym_unary_expression, STATE 1303),
     (sym__postfix_expression, STATE 1303), (sym_postfix_expression, STATE 1301),
     (sym_spread_element, STATE 2660), (sym_prefix_operator, STATE 431),
     (sym_negation_operator, STATE 1450), (sym__exclamation_operator, STATE 1451),
     (sym_tilde_operator, STATE 1385), (sym_await_expression, STATE 1302),
     (sym_new_expression, STATE 962), (sym_const_object_expression, STATE 962),
     (sym__primary, STATE 668), (sym_parenthesized_expression, STATE 962),
     (sym_constructor_invocation, STATE 643), (sym_constructor_tearoff, STATE 962),
     (sym_type_arguments, STATE 3200), (sym_switch_expression, STATE 962),
     (sym__parenthesized_pattern, STATE 3182), (sym_list_pattern, STATE 3182),
     (sym_map_pattern, STATE 3182), (sym_record_pattern, STATE 3182),
     (sym_object_pattern, STATE 3182), (sym__outer_pattern, STATE 3410),
     (sym_pattern_assignment, STATE 908), (sym_if_element, STATE 2660),
     (sym_for_element, STATE 2660), (sym_type_parameters, STATE 2932),
     (sym__type_name, STATE 2661), (sym__formal_parameter_part, STATE 2339),
     (sym_formal_parameter_list, STATE 2020), (sym__strict_formal_parameter_list, STATE 2016),
     (sym__new_builtin, STATE 2079), (sym_this, STATE 962), (sym_super, STATE 1337),
     (sym_comment, STATE 85), (sym_documentation_comment, STATE 85),
     (aux_sym_string_literal_repeat1, STATE 474), (sym_identifier, ACTIONS 494),
     (anon_sym_POUND, ACTIONS 73), (sym_decimal_integer_literal, ACTIONS 75),
     (sym_hex_integer_literal, ACTIONS 77), (sym_decimal_floating_point_literal, ACTIONS 75),
     (anon_sym_true, ACTIONS 79), (anon_sym_false, ACTIONS 81), (anon_sym_DQUOTE, ACTIONS 83),
     (anon_sym_SQUOTE, ACTIONS 85), (anon_sym_DQUOTE_DQUOTE_DQUOTE, ACTIONS 87),
     (anon_sym_SQUOTE_SQUOTE_SQUOTE, ACTIONS 89), (anon_sym_r_DQUOTE, ACTIONS 91),
     (anon_sym_r_SQUOTE, ACTIONS 93), (anon_sym_r_DQUOTE_DQUOTE_DQUOTE, ACTIONS 95),
     (anon_sym_r_SQUOTE_SQUOTE_SQUOTE, ACTIONS 97), (anon_sym_LBRACE, ACTIONS 442),
     (anon_sym_LBRACK, ACTIONS 103), (anon_sym_RBRACK, ACTIONS 518),
     (anon_sym_null, ACTIONS 105), (anon_sym_LPAREN, ACTIONS 498), (anon_sym_throw, ACTIONS 109),
     (anon_sym_LT, ACTIONS 111), (sym_increment_operator, ACTIONS 113),
     (anon_sym_DOT_DOT_DOT, ACTIONS 167), (sym_minus_operator, ACTIONS 117),
     (anon_sym_BANG, ACTIONS 119), (anon_sym_TILDE, ACTIONS 121), (anon_sym_await, ACTIONS 410),
     (anon_sym_switch, ACTIONS 412), (anon_sym_if, ACTIONS 414), (anon_sym_for, ACTIONS 416),
     (sym_rethrow_builtin, ACTIONS 151), (anon_sym_new, ACTIONS 155),
     (sym_const_builtin, ACTIONS 478), (anon_sym_this, ACTIONS 159),
     (anon_sym_super, ACTIONS 161), (anon_sym_SLASH_SLASH, ACTIONS 3),
     (anon_sym_SLASH_STAR, ACTIONS 5), (anon_sym_SLASH_SLASH_SLASH, ACTIONS 7),
     (sym__block_comment, ACTIONS 9), (sym__documentation_block_comment, ACTIONS 11)]"

lemma row_ok_85: "table_row_ok 85 ts_parse_table_85"
  by (simp add: row_simps ts_parse_table_85_def)

definition ts_parse_table_86 :: table_row where
  "ts_parse_table_86 = [
     (sym__bool_literal, STATE 989), (sym__numeric_literal, STATE 989),
     (sym__literal, STATE 962), (sym_symbol_literal, STATE 989), (sym_true, STATE 900),
     (sym_false, STATE 900), (sym_string_literal, STATE 989),
     (sym__string_literal_double_quotes, STATE 627),
     (sym__string_literal_single_quotes, STATE 627),
     (sym__string_literal_double_quotes_multiple, STATE 627),
     (sym__string_literal_single_quotes_multiple, STATE 627),
     (sym__raw_string_literal_double_quotes, STATE 627),
     (sym__raw_string_literal_single_quotes, STATE 627),
     (sym__raw_string_literal_double_quotes_multiple, STATE 627),
     (sym__raw_string_literal_single_quotes_multiple, STATE 627), (sym_list_literal, STATE 989),
     (sym_set_or_map_literal, STATE 989), (sym_pair, STATE 2660), (sym__element, STATE 2830),
     (sym_null_literal, STATE 989), (sym_record_literal, STATE 989),
     (sym__record_literal_no_const, STATE 924), (sym__expression, STATE 2562),
     (sym__real_expression, STATE 660), (sym_throw_expression, STATE 908),
     (sym_rethrow_expression, STATE 908), (sym_assignment_expression, STATE 908),
     (sym_assignable_expression, STATE 1940), (sym_function_expression, STATE 962),
     (sym_if_null_expression, STATE 1477), (sym_conditional_expression, STATE 1477),
     (sym_logical_or_expression, STATE 1477), (sym_logical_and_expression, STATE 1477),
     (sym_equality_expression, STATE 1477), (sym_type_cast_expression, STATE 1477),
     (sym_type_test_expression, STATE 1477), (sym_relational_expression, STATE 1477),
     (sym_bitwise_or_expression, STATE 1477), (sym_bitwise_xor_expression, STATE 1477),
     (sym_bitwise_and_expression, STATE 1477), (sym_shift_expression, STATE 1477),
     (sym_additive_expression, STATE 1477), (sym_multiplicative_expression, STATE 1477),
     (sym__unary_expression, STATE 1121), (sym_unary_expression, STATE 1303),
     (sym__postfix_expression, STATE 1303), (sym_postfix_expression, STATE 1301),
     (sym_spread_element, STATE 2660), (sym_prefix_operator, STATE 431),
     (sym_negation_operator, STATE 1450), (sym__exclamation_operator, STATE 1451),
     (sym_tilde_operator, STATE 1385), (sym_await_expression, STATE 1302),
     (sym_new_expression, STATE 962), (sym_const_object_expression, STATE 962),
     (sym__primary, STATE 668), (sym_parenthesized_expression, STATE 962),
     (sym_constructor_invocation, STATE 643), (sym_constructor_tearoff, STATE 962),
     (sym_type_arguments, STATE 3200), (sym_switch_expression, STATE 962),
     (sym__parenthesized_pattern, STATE 3182), (sym_list_pattern, STATE 3182),
     (sym_map_pattern, STATE 3182), (sym_record_pattern, STATE 3182),
     (sym_object_pattern, STATE 3182), (sym__outer_pattern, STATE 3410),
     (sym_pattern_assignment, STATE 908), (sym_if_element, STATE 2660),
     (sym_for_element, STATE 2660), (sym_type_parameters, STATE 2932),
     (sym__type_name, STATE 2661), (sym__formal_parameter_part, STATE 2339),
     (sym_formal_parameter_list, STATE 2020), (sym__strict_formal_parameter_list, STATE 2016),
     (sym__new_builtin, STATE 2079), (sym_this, STATE 962), (sym_super, STATE 1337),
     (sym_comment, STATE 86), (sym_documentation_comment, STATE 86),
     (aux_sym_string_literal_repeat1, STATE 474), (sym_identifier, ACTIONS 494),
     (anon_sym_POUND, ACTIONS 73), (sym_decimal_integer_literal, ACTIONS 75),
     (sym_hex_integer_literal, ACTIONS 77), (sym_decimal_floating_point_literal, ACTIONS 75),
     (anon_sym_true, ACTIONS 79), (anon_sym_false, ACTIONS 81), (anon_sym_DQUOTE, ACTIONS 83),
     (anon_sym_SQUOTE, ACTIONS 85), (anon_sym_DQUOTE_DQUOTE_DQUOTE, ACTIONS 87),
     (anon_sym_SQUOTE_SQUOTE_SQUOTE, ACTIONS 89), (anon_sym_r_DQUOTE, ACTIONS 91),
     (anon_sym_r_SQUOTE, ACTIONS 93), (anon_sym_r_DQUOTE_DQUOTE_DQUOTE, ACTIONS 95),
     (anon_sym_r_SQUOTE_SQUOTE_SQUOTE, ACTIONS 97), (anon_sym_LBRACE, ACTIONS 442),
     (anon_sym_RBRACE, ACTIONS 520), (anon_sym_LBRACK, ACTIONS 103),
     (anon_sym_null, ACTIONS 105), (anon_sym_LPAREN, ACTIONS 498), (anon_sym_throw, ACTIONS 109),
     (anon_sym_LT, ACTIONS 111), (sym_increment_operator, ACTIONS 113),
     (anon_sym_DOT_DOT_DOT, ACTIONS 167), (sym_minus_operator, ACTIONS 117),
     (anon_sym_BANG, ACTIONS 119), (anon_sym_TILDE, ACTIONS 121), (anon_sym_await, ACTIONS 410),
     (anon_sym_switch, ACTIONS 412), (anon_sym_if, ACTIONS 414), (anon_sym_for, ACTIONS 416),
     (sym_rethrow_builtin, ACTIONS 151), (anon_sym_new, ACTIONS 155),
     (sym_const_builtin, ACTIONS 478), (anon_sym_this, ACTIONS 159),
     (anon_sym_super, ACTIONS 161), (anon_sym_SLASH_SLASH, ACTIONS 3),
     (anon_sym_SLASH_STAR, ACTIONS 5), (anon_sym_SLASH_SLASH_SLASH, ACTIONS 7),
     (sym__block_comment, ACTIONS 9), (sym__documentation_block_comment, ACTIONS 11)]"

lemma row_ok_86: "table_row_ok 86 ts_parse_table_86"
  by (simp add: row_simps ts_parse_table_86_def)

definition ts_parse_table_87 :: table_row where
  "ts_parse_table_87 = [
     (sym__bool_literal, STATE 989), (sym__numeric_literal, STATE 989),
     (sym__literal, STATE 962), (sym_symbol_literal, STATE 989), (sym_true, STATE 900),
     (sym_false, STATE 900), (sym_string_literal, STATE 989),
     (sym__string_literal_double_quotes, STATE 627),
     (sym__string_literal_single_quotes, STATE 627),
     (sym__string_literal_double_quotes_multiple, STATE 627),
     (sym__string_literal_single_quotes_multiple, STATE 627),
     (sym__raw_string_literal_double_quotes, STATE 627),
     (sym__raw_string_literal_single_quotes, STATE 627),
     (sym__raw_string_literal_double_quotes_multiple, STATE 627),
     (sym__raw_string_literal_single_quotes_multiple, STATE 627), (sym_list_literal, STATE 989),
     (sym_set_or_map_literal, STATE 989), (sym_pair, STATE 2660), (sym__element, STATE 2838),
     (sym_null_literal, STATE 989), (sym_record_literal, STATE 989),
     (sym__record_literal_no_const, STATE 924), (sym__expression, STATE 2562),
     (sym__real_expression, STATE 660), (sym_throw_expression, STATE 908),
     (sym_rethrow_expression, STATE 908), (sym_assignment_expression, STATE 908),
     (sym_assignable_expression, STATE 1940), (sym_function_expression, STATE 962),
     (sym_if_null_expression, STATE 1477), (sym_conditional_expression, STATE 1477),
     (sym_logical_or_expression, STATE 1477), (sym_logical_and_expression, STATE 1477),
     (sym_equality_expression, STATE 1477), (sym_type_cast_expression, STATE 1477),
     (sym_type_test_expression, STATE 1477), (sym_relational_expression, STATE 1477),
     (sym_bitwise_or_expression, STATE 1477), (sym_bitwise_xor_expression, STATE 1477),
     (sym_bitwise_and_expression, STATE 1477), (sym_shift_expression, STATE 1477),
     (sym_additive_expression, STATE 1477), (sym_multiplicative_expression, STATE 1477),
     (sym__unary_expression, STATE 1121), (sym_unary_expression, STATE 1303),
     (sym__postfix_expression, STATE 1303), (sym_postfix_expression, STATE 1301),
     (sym_spread_element, STATE 2660), (sym_prefix_operator, STATE 431),
     (sym_negation_operator, STATE 1450), (sym__exclamation_operator, STATE 1451),
     (sym_tilde_operator, STATE 1385), (sym_await_expression, STATE 1302),
     (sym_new_expression, STATE 962), (sym_const_object_expression, STATE 962),
     (sym__primary, STATE 668), (sym_parenthesized_expression, STATE 962),
     (sym_constructor_invocation, STATE 643), (sym_constructor_tearoff, STATE 962),
     (sym_type_arguments, STATE 3200), (sym_switch_expression, STATE 962),
     (sym__parenthesized_pattern, STATE 3182), (sym_list_pattern, STATE 3182),
     (sym_map_pattern, STATE 3182), (sym_record_pattern, STATE 3182),
     (sym_object_pattern, STATE 3182), (sym__outer_pattern, STATE 3410),
     (sym_pattern_assignment, STATE 908), (sym_if_element, STATE 2660),
     (sym_for_element, STATE 2660), (sym_type_parameters, STATE 2932),
     (sym__type_name, STATE 2661), (sym__formal_parameter_part, STATE 2339),
     (sym_formal_parameter_list, STATE 2020), (sym__strict_formal_parameter_list, STATE 2016),
     (sym__new_builtin, STATE 2079), (sym_this, STATE 962), (sym_super, STATE 1337),
     (sym_comment, STATE 87), (sym_documentation_comment, STATE 87),
     (aux_sym_string_literal_repeat1, STATE 474), (sym_identifier, ACTIONS 494),
     (anon_sym_POUND, ACTIONS 73), (sym_decimal_integer_literal, ACTIONS 75),
     (sym_hex_integer_literal, ACTIONS 77), (sym_decimal_floating_point_literal, ACTIONS 75),
     (anon_sym_true, ACTIONS 79), (anon_sym_false, ACTIONS 81), (anon_sym_DQUOTE, ACTIONS 83),
     (anon_sym_SQUOTE, ACTIONS 85), (anon_sym_DQUOTE_DQUOTE_DQUOTE, ACTIONS 87),
     (anon_sym_SQUOTE_SQUOTE_SQUOTE, ACTIONS 89), (anon_sym_r_DQUOTE, ACTIONS 91),
     (anon_sym_r_SQUOTE, ACTIONS 93), (anon_sym_r_DQUOTE_DQUOTE_DQUOTE, ACTIONS 95),
     (anon_sym_r_SQUOTE_SQUOTE_SQUOTE, ACTIONS 97), (anon_sym_LBRACE, ACTIONS 442),
     (anon_sym_RBRACE, ACTIONS 522), (anon_sym_LBRACK, ACTIONS 103),
     (anon_sym_null, ACTIONS 105), (anon_sym_LPAREN, ACTIONS 498), (anon_sym_throw, ACTIONS 109),
     (anon_sym_LT, ACTIONS 111), (sym_increment_operator, ACTIONS 113),
     (anon_sym_DOT_DOT_DOT, ACTIONS 167), (sym_minus_operator, ACTIONS 117),
     (anon_sym_BANG, ACTIONS 119), (anon_sym_TILDE, ACTIONS 121), (anon_sym_await, ACTIONS 410),
     (anon_sym_switch, ACTIONS 412), (anon_sym_if, ACTIONS 414), (anon_sym_for, ACTIONS 416),
     (sym_rethrow_builtin, ACTIONS 151), (anon_sym_new, ACTIONS 155),
     (sym_const_builtin, ACTIONS 478), (anon_sym_this, ACTIONS 159),
     (anon_sym_super, ACTIONS 161), (anon_sym_SLASH_SLASH, ACTIONS 3),
     (anon_sym_SLASH_STAR, ACTIONS 5), (anon_sym_SLASH_SLASH_SLASH, ACTIONS 7),
     (sym__block_comment, ACTIONS 9), (sym__documentation_block_comment, ACTIONS 11)]"

lemma row_ok_87: "table_row_ok 87 ts_parse_table_87"
  by (simp add: row_simps ts_parse_table_87_def)

definition ts_parse_table_rows_2 :: "(TSStateId \<times> table_row) list" where
  "ts_parse_table_rows_2 = [
     (40, ts_parse_table_40), (41, ts_parse_table_41), (42, ts_parse_table_42),
     (43, ts_parse_table_43), (44, ts_parse_table_44), (45, ts_parse_table_45),
     (46, ts_parse_table_46), (47, ts_parse_table_47), (48, ts_parse_table_48),
     (49, ts_parse_table_49), (50, ts_parse_table_50), (51, ts_parse_table_51),
     (52, ts_parse_table_52), (53, ts_parse_table_53), (54, ts_parse_table_54),
     (55, ts_parse_table_55), (56, ts_parse_table_56), (57, ts_parse_table_57),
     (58, ts_parse_table_58), (59, ts_parse_table_59), (60, ts_parse_table_60),
     (61, ts_parse_table_61), (62, ts_parse_table_62), (63, ts_parse_table_63),
     (64, ts_parse_table_64), (65, ts_parse_table_65), (66, ts_parse_table_66),
     (67, ts_parse_table_67), (68, ts_parse_table_68), (69, ts_parse_table_69),
     (70, ts_parse_table_70), (71, ts_parse_table_71), (72, ts_parse_table_72),
     (73, ts_parse_table_73), (74, ts_parse_table_74), (75, ts_parse_table_75),
     (76, ts_parse_table_76), (77, ts_parse_table_77), (78, ts_parse_table_78),
     (79, ts_parse_table_79), (80, ts_parse_table_80), (81, ts_parse_table_81),
     (82, ts_parse_table_82), (83, ts_parse_table_83), (84, ts_parse_table_84),
     (85, ts_parse_table_85), (86, ts_parse_table_86), (87, ts_parse_table_87)]"

lemma rows_ok_2: "list_all (\<lambda>(s, es). table_row_ok s es) ts_parse_table_rows_2"
  by (simp add: ts_parse_table_rows_2_def
    row_ok_40 row_ok_41 row_ok_42 row_ok_43 row_ok_44 row_ok_45 row_ok_46 row_ok_47 row_ok_48
    row_ok_49 row_ok_50 row_ok_51 row_ok_52 row_ok_53 row_ok_54 row_ok_55 row_ok_56 row_ok_57
    row_ok_58 row_ok_59 row_ok_60 row_ok_61 row_ok_62 row_ok_63 row_ok_64 row_ok_65 row_ok_66
    row_ok_67 row_ok_68 row_ok_69 row_ok_70 row_ok_71 row_ok_72 row_ok_73 row_ok_74 row_ok_75
    row_ok_76 row_ok_77 row_ok_78 row_ok_79 row_ok_80 row_ok_81 row_ok_82 row_ok_83 row_ok_84
    row_ok_85 row_ok_86 row_ok_87)

lemma row_keys_2: "map fst ts_parse_table_rows_2 = [40..<88]"
  by (simp add: ts_parse_table_rows_2_def upt_from_0)

end
