(* ===== verification/Dart_Rows_3.thy ===== *)
theory Dart_Rows_3
  imports Dart_Items
begin

text \<open>
  The rows 88 to 144 of \<^verbatim>\<open>ts_parse_table\<close>, each with the check of its entries.
\<close>

definition ts_parse_table_88 :: table_row where
  "ts_parse_table_88 = [
     (sym__bool_literal, STATE 989), (sym__numeric_literal, STATE 989),
     (sym__literal, STATE 962), (sym_symbol_literal, STATE 989), (sym_true, STATE 900),
     (sym_false, STATE 900), (sym_string_literal, STATE 989),
     (sym__string_literal_double_quotes, STATE 627),
     (sym__string_literal_single_quotes, STATE 627),
     (sym__string_literal_double_quotes_multiple, STATE 627),
     (sym__string_literal_single_quotes_multiple, STATE 627),
     (sym__raw_string_literal_double_quotes, STATE 627),
     (sym__raw_string_literal_single_quotes, STATE 627),
     (sym__raw_string_literal_double_quotes_multiple, STATE 627),
     (sym__raw_string_literal_single_quotes_multiple, STATE 627), (sym_list_literal, STATE 989),
     (sym_set_or_map_literal, STATE 989), (sym_pair, STATE 2660), (sym__element, STATE 2838),
     (sym_null_literal, STATE 989), (sym_record_literal, STATE 989),
     (sym__record_literal_no_const, STATE 924), (sym__expression, STATE 2562),
     (sym__real_expression, STATE 660), (sym_throw_expression, STATE 908),
     (sym_rethrow_expression, STATE 908), (sym_assignment_expression, STATE 908),
     (sym_assignable_expression, STATE 1940), (sym_function_expression, STATE 962),
     (sym_if_null_expression, STATE 1477), (sym_conditional_expression, STATE 1477),
     (sym_logical_or_expression, STATE 1477), (sym_logical_and_expression, STATE 1477),
     (sym_equality_expression, STATE 1477), (sym_type_cast_expression, STATE 1477),
     (sym_type_test_expression, STATE 1477), (sym_relational_expression, STATE 1477),
     (sym_bitwise_or_expression, STATE 1477), (sym_bitwise_xor_expression, STATE 1477),
     (sym_bitwise_and_expression, STATE 1477), (sym_shift_expression, STATE 1477),
     (sym_additive_expression, STATE 1477), (sym_multiplicative_expression, STATE 1477),
     (sym__unary_expression, STATE 1121), (sym_unary_expression, STATE 1303),
     (sym__postfix_expression, STATE 1303), (sym_postfix_expression, STATE 1301),
     (sym_spread_element, STATE 2660), (sym_prefix_operator, STATE 431),
     (sym_negation_operator, STATE 1450), (sym__exclamation_operator, STATE 1451),
     (sym_tilde_operator, STATE 1385), (sym_await_expression, STATE 1302),
     (sym_new_expression, STATE 962), (sym_const_object_expression, STATE 962),
     (sym__primary, STATE 668), (sym_parenthesized_expression, STATE 962),
     (sym_constructor_invocation, STATE 643), (sym_constructor_tearoff, STATE 962),
     (sym_type_arguments, STATE 3200), (sym_switch_expression, STATE 962),
     (sym__parenthesized_pattern, STATE 3182), (sym_list_pattern, STATE 3182),
     (sym_map_pattern, STATE 3182), (sym_record_pattern, STATE 3182),
     (sym_object_pattern, STATE 3182), (sym__outer_pattern, STATE 3410),
     (sym_pattern_assignment, STATE 908), (sym_if_element, STATE 2660),
     (sym_for_element, STATE 2660), (sym_type_parameters, STATE 2932),
     (sym__type_name, STATE 2661), (sym__formal_parameter_part, STATE 2339),
     (sym_formal_parameter_list, STATE 2020), (sym__strict_formal_parameter_list, STATE 2016),
     (sym__new_builtin, STATE 2079), (sym_this, STATE 962), (sym_super, STATE 1337),
     (sym_comment, STATE 88), (sym_documentation_comment, STATE 88),
     (aux_sym_string_literal_repeat1, STATE 474), (sym_identifier, ACTIONS 494),
     (anon_sym_POUND, ACTIONS 73), (sym_decimal_integer_literal, ACTIONS 75),
     (sym_hex_integer_literal, ACTIONS 77), (sym_decimal_floating_point_literal, ACTIONS 75),
     (anon_sym_true, ACTIONS 79), (anon_sym_false, ACTIONS 81), (anon_sym_DQUOTE, ACTIONS 83),
     (anon_sym_SQUOTE, ACTIONS 85), (anon_sym_DQUOTE_DQUOTE_DQUOTE, ACTIONS 87),
     (anon_sym_SQUOTE_SQUOTE_SQUOTE, ACTIONS 89), (anon_sym_r_DQUOTE, ACTIONS 91),
     (anon_sym_r_SQUOTE, ACTIONS 93), (anon_sym_r_DQUOTE_DQUOTE_DQUOTE, ACTIONS 95),
     (anon_sym_r_SQUOTE_SQUOTE_SQUOTE, ACTIONS 97), (anon_sym_LBRACE, ACTIONS 442),
     (anon_sym_LBRACK, ACTIONS 103), (anon_sym_RBRACK, ACTIONS 524),
     (anon_sym_null, ACTIONS 105), (anon_sym_LPAREN, ACTIONS 498), (anon_sym_throw, ACTIONS 109),
     (anon_sym_LT, ACTIONS 111), (sym_increment_operator, ACTIONS 113),
     (anon_sym_DOT_DOT_DOT, ACTIONS 167), (sym_minus_operator, ACTIONS 117),
     (anon_sym_BANG, ACTIONS 119), (anon_sym_TILDE, ACTIONS 121), (anon_sym_await, ACTIONS 410),
     (anon_sym_switch, ACTIONS 412), (anon_sym_if, ACTIONS 414), (anon_sym_for, ACTIONS 416),
     (sym_rethrow_builtin, ACTIONS 151), (anon_sym_new, ACTIONS 155),
     (sym_const_builtin, ACTIONS 478), (anon_sym_this, ACTIONS 159),
     (anon_sym_super, ACTIONS 161), (anon_sym_SLASH_SLASH, ACTIONS 3),
     (anon_sym_SLASH_STAR, ACTIONS 5), (anon_sym_SLASH_SLASH_SLASH, ACTIONS 7),
     (sym__block_comment, ACTIONS 9), (sym__documentation_block_comment, ACTIONS 11)]"

lemma row_ok_88: "table_row_ok 88 ts_parse_table_88"
  by (simp add: row_simps ts_parse_table_88_def)

definition ts_parse_table_89 :: table_row where
  "ts_parse_table_89 = [
     (sym__bool_literal, STATE 989), (sym__numeric_literal, STATE 989),
     (sym__literal, STATE 962), (sym_symbol_literal, STATE 989), (sym_true, STATE 900),
     (sym_false, STATE 900), (sym_string_literal, STATE 989),
     (sym__string_literal_double_quotes, STATE 627),
     (sym__string_literal_single_quotes, STATE 627),
     (sym__string_literal_double_quotes_multiple, STATE 627),
     (sym__string_literal_single_quotes_multiple, STATE 627),
     (sym__raw_string_literal_double_quotes, STATE 627),
     (sym__raw_string_literal_single_quotes, STATE 627),
     (sym__raw_string_literal_double_quotes_multiple, STATE 627),
     (sym__raw_string_literal_single_quotes_multiple, STATE 627), (sym_list_literal, STATE 989),
     (sym_set_or_map_literal, STATE 989), (sym_pair, STATE 2660), (sym__element, STATE 2797),
     (sym_null_literal, STATE 989), (sym_record_literal, STATE 989),
     (sym__record_literal_no_const, STATE 924), (sym__expression, STATE 2562),
     (sym__real_expression, STATE 660), (sym_throw_expression, STATE 908),
     (sym_rethrow_expression, STATE 908), (sym_assignment_expression, STATE 908),
     (sym_assignable_expression, STATE 1940), (sym_function_expression, STATE 962),
     (sym_if_null_expression, STATE 1477), (sym_conditional_expression, STATE 1477),
     (sym_logical_or_expression, STATE 1477), (sym_logical_and_expression, STATE 1477),
     (sym_equality_expression, STATE 1477), (sym_type_cast_expression, STATE 1477),
     (sym_type_test_expression, STATE 1477), (sym_relational_expression, STATE 1477),
     (sym_bitwise_or_expression, STATE 1477), (sym_bitwise_xor_expression, STATE 1477),
     (sym_bitwise_and_expression, STATE 1477), (sym_shift_expression, STATE 1477),
     (sym_additive_expression, STATE 1477), (sym_multiplicative_expression, STATE 1477),
     (sym__unary_expression, STATE 1121), (sym_unary_expression, STATE 1303),
     (sym__postfix_expression, STATE 1303), (sym_postfix_expression, STATE 1301),
     (sym_spread_element, STATE 2660), (sym_prefix_operator, STATE 431),
     (sym_negation_operator, STATE 1450), (sym__exclamation_operator, STATE 1451),
     (sym_tilde_operator, STATE 1385), (sym_await_expression, STATE 1302),
     (sym_new_expression, STATE 962), (sym_const_object_expression, STATE 962),
     (sym__primary, STATE 668), (sym_parenthesized_expression, STATE 962),
     (sym_constructor_invocation, STATE 643), (sym_constructor_tearoff, STATE 962),
     (sym_type_arguments, STATE 3200), (sym_switch_expression, STATE 962),
     (sym__parenthesized_pattern, STATE 3182), (sym_list_pattern, STATE 3182),
     (sym_map_pattern, STATE 3182), (sym_record_pattern, STATE 3182),
     (sym_object_pattern, STATE 3182), (sym__outer_pattern, STATE 3410),
     (sym_pattern_assignment, STATE 908), (sym_if_element, STATE 2660),
     (sym_for_element, STATE 2660), (sym_type_parameters, STATE 2932),
     (sym__type_name, STATE 2661), (sym__formal_parameter_part, STATE 2339),
     (sym_formal_parameter_list, STATE 2020), (sym__strict_formal_parameter_list, STATE 2016),
     (sym__new_builtin, STATE 2079), (sym_this, STATE 962), (sym_super, STATE 1337),
     (sym_comment, STATE 89), (sym_documentation_comment, STATE 89),
     (aux_sym_string_literal_repeat1, STATE 474), (sym_identifier, ACTIONS 494),
     (anon_sym_POUND, ACTIONS 73), (sym_decimal_integer_literal, ACTIONS 75),
     (sym_hex_integer_literal, ACTIONS 77), (sym_decimal_floating_point_literal, ACTIONS 75),
     (anon_sym_true, ACTIONS 79), (anon_sym_false, ACTIONS 81), (anon_sym_DQUOTE, ACTIONS 83),
     (anon_sym_SQUOTE, ACTIONS 85), (anon_sym_DQUOTE_DQUOTE_DQUOTE, ACTIONS 87),
     (anon_sym_SQUOTE_SQUOTE_SQUOTE, ACTIONS 89), (anon_sym_r_DQUOTE, ACTIONS 91),
     (anon_sym_r_SQUOTE, ACTIONS 93), (anon_sym_r_DQUOTE_DQUOTE_DQUOTE, ACTIONS 95),
     (anon_sym_r_SQUOTE_SQUOTE_SQUOTE, ACTIONS 97), (anon_sym_LBRACE, ACTIONS 442),
     (anon_sym_LBRACK, ACTIONS 103), (anon_sym_RBRACK, ACTIONS 526),
     (anon_sym_null, ACTIONS 105), (anon_sym_LPAREN, ACTIONS 498), (anon_sym_throw, ACTIONS 109),
     (anon_sym_LT, ACTIONS 111), (sym_increment_operator, ACTIONS 113),
     (anon_sym_DOT_DOT_DOT, ACTIONS 167), (sym_minus_operator, ACTIONS 117),
     (anon_sym_BANG, ACTIONS 119), (anon_sym_TILDE, ACTIONS 121), (anon_sym_await, ACTIONS 410),
     (anon_sym_switch, ACTIONS 412), (anon_sym_if, ACTIONS 414), (anon_sym_for, ACTIONS 416),
     (sym_rethrow_builtin, ACTIONS 151), (anon_sym_new, ACTIONS 155),
     (sym_const_builtin, ACTIONS 478), (anon_sym_this, ACTIONS 159),
     (anon_sym_super, ACTIONS 161), (anon_sym_SLASH_SLASH, ACTIONS 3),
     (anon_sym_SLASH_STAR, ACTIONS 5), (anon_sym_SLASH_SLASH_SLASH, ACTIONS 7),
     (sym__block_comment, ACTIONS 9), (sym__documentation_block_comment, ACTIONS 11)]"

lemma row_ok_89: "table_row_ok 89 ts_parse_table_89"
  by (simp add: row_simps ts_parse_table_89_def)

definition ts_parse_table_90 :: table_row where
  "ts_parse_table_90 = [
     (sym__bool_literal, STATE 989), (sym__numeric_literal, STATE 989),
     (sym__literal, STATE 962), (sym_symbol_literal, STATE 989), (sym_true, STATE 900),
     (sym_false, STATE 900), (sym_string_literal, STATE 989),
     (sym__string_literal_double_quotes, STATE 627),
     (sym__string_literal_single_quotes, STATE 627),
     (sym__string_literal_double_quotes_multiple, STATE 627),
     (sym__string_literal_single_quotes_multiple, STATE 627),
     (sym__raw_string_literal_double_quotes, STATE 627),
     (sym__raw_string_literal_single_quotes, STATE 627),
     (sym__raw_string_literal_double_quotes_multiple, STATE 627),
     (sym__raw_string_literal_single_quotes_multiple, STATE 627), (sym_list_literal, STATE 989),
     (sym_set_or_map_literal, STATE 989), (sym_pair, STATE 2660), (sym__element, STATE 2801),
     (sym_null_literal, STATE 989), (sym_record_literal, STATE 989),
     (sym__record_literal_no_const, STATE 924), (sym__expression, STATE 2562),
     (sym__real_expression, STATE 660), (sym_throw_expression, STATE 908),
     (sym_rethrow_expression, STATE 908), (sym_assignment_expression, STATE 908),
     (sym_assignable_expression, STATE 1940), (sym_function_expression, STATE 962),
     (sym_if_null_expression, STATE 1477), (sym_conditional_expression, STATE 1477),
     (sym_logical_or_expression, STATE 1477), (sym_logical_and_expression, STATE 1477),
     (sym_equality_expression, STATE 1477), (sym_type_cast_expression, STATE 1477),
     (sym_type_test_expression, STATE 1477), (sym_relational_expression, STATE 1477),
     (sym_bitwise_or_expression, STATE 1477), (sym_bitwise_xor_expression, STATE 1477),
     (sym_bitwise_and_expression, STATE 1477), (sym_shift_expression, STATE 1477),
     (sym_additive_expression, STATE 1477), (sym_multiplicative_expression, STATE 1477),
     (sym__unary_expression, STATE 1121), (sym_unary_expression, STATE 1303),
     (sym__postfix_expression, STATE 1303), (sym_postfix_expression, STATE 1301),
     (sym_spread_element, STATE 2660), (sym_prefix_operator, STATE 431),
     (sym_negation_operator, STATE 1450), (sym__exclamation_operator, STATE 1451),
     (sym_tilde_operator, STATE 1385), (sym_await_expression, STATE 1302),
     (sym_new_expression, STATE 962), (sym_const_object_expression, STATE 962),
     (sym__primary, STATE 668), (sym_parenthesized_expression, STATE 962),
     (sym_constructor_invocation, STATE 643), (sym_constructor_tearoff, STATE 962),
     (sym_type_arguments, STATE 3200), (sym_switch_expression, STATE 962),
     (sym__parenthesized_pattern, STATE 3182), (sym_list_pattern, STATE 3182),
     (sym_map_pattern, STATE 3182), (sym_record_pattern, STATE 3182),
     (sym_object_pattern, STATE 3182), (sym__outer_pattern, STATE 3410),
     (sym_pattern_assignment, STATE 908), (sym_if_element, STATE 2660),
     (sym_for_element, STATE 2660), (sym_type_parameters, STATE 2932),
     (sym__type_name, STATE 2661), (sym__formal_parameter_part, STATE 2339),
     (sym_formal_parameter_list, STATE 2020), (sym__strict_formal_parameter_list, STATE 2016),
     (sym__new_builtin, STATE 2079), (sym_this, STATE 962), (sym_super, STATE 1337),
     (sym_comment, STATE 90), (sym_documentation_comment, STATE 90),
     (aux_sym_string_literal_repeat1, STATE 474), (sym_identifier, ACTIONS 494),
     (anon_sym_POUND, ACTIONS 73), (sym_decimal_integer_literal, ACTIONS 75),
     (sym_hex_integer_literal, ACTIONS 77), (sym_decimal_floating_point_literal, ACTIONS 75),
     (anon_sym_true, ACTIONS 79), (anon_sym_false, ACTIONS 81), (anon_sym_DQUOTE, ACTIONS 83),
     (anon_sym_SQUOTE, ACTIONS 85), (anon_sym_DQUOTE_DQUOTE_DQUOTE, ACTIONS 87),
     (anon_sym_SQUOTE_SQUOTE_SQUOTE, ACTIONS 89), (anon_sym_r_DQUOTE, ACTIONS 91),
     (anon_sym_r_SQUOTE, ACTIONS 93), (anon_sym_r_DQUOTE_DQUOTE_DQUOTE, ACTIONS 95),
     (anon_sym_r_SQUOTE_SQUOTE_SQUOTE, ACTIONS 97), (anon_sym_LBRACE, ACTIONS 442),
     (anon_sym_RBRACE, ACTIONS 528), (anon_sym_LBRACK, ACTIONS 103),
     (anon_sym_null, ACTIONS 105), (anon_sym_LPAREN, ACTIONS 498), (anon_sym_throw, ACTIONS 109),
     (anon_sym_LT, ACTIONS 111), (sym_increment_operator, ACTIONS 113),
     (anon_sym_DOT_DOT_DOT, ACTIONS 167), (sym_minus_operator, ACTIONS 117),
     (anon_sym_BANG, ACTIONS 119), (anon_sym_TILDE, ACTIONS 121), (anon_sym_await, ACTIONS 410),
     (anon_sym_switch, ACTIONS 412), (anon_sym_if, ACTIONS 414), (anon_sym_for, ACTIONS 416),
     (sym_rethrow_builtin, ACTIONS 151), (anon_sym_new, ACTIONS 155),
     (sym_const_builtin, ACTIONS 478), (anon_sym_this, ACTIONS 159),
     (anon_sym_super, ACTIONS 161), (anon_sym_SLASH_SLASH, ACTIONS 3),
     (anon_sym_SLASH_STAR, ACTIONS 5), (anon_sym_SLASH_SLASH_SLASH, ACTIONS 7),
     (sym__block_comment, ACTIONS 9), (sym__documentation_block_comment, ACTIONS 11)]"

lemma row_ok_90: "table_row_ok 90 ts_parse_table_90"
  by (simp add: row_simps ts_parse_table_90_def)

definition ts_parse_table_91 :: table_row where
  "ts_parse_table_91 = [
     (sym__bool_literal, STATE 989), (sym__numeric_literal, STATE 989),
     (sym__literal, STATE 962), (sym_symbol_literal, STATE 989), (sym_true, STATE 900),
     (sym_false, STATE 900), (sym_string_literal, STATE 989),
     (sym__string_literal_double_quotes, STATE 627),
     (sym__string_literal_single_quotes, STATE 627),
     (sym__string_literal_double_quotes_multiple, STATE 627),
     (sym__string_literal_single_quotes_multiple, STATE 627),
     (sym__raw_string_literal_double_quotes, STATE 627),
     (sym__raw_string_literal_single_quotes, STATE 627),
     (sym__raw_string_literal_double_quotes_multiple, STATE 627),
     (sym__raw_string_literal_single_quotes_multiple, STATE 627), (sym_list_literal, STATE 989),
     (sym_set_or_map_literal, STATE 989), (sym_pair, STATE 2660), (sym__element, STATE 2852),
     (sym_null_literal, STATE 989), (sym_record_literal, STATE 989),
     (sym__record_literal_no_const, STATE 924), (sym__expression, STATE 2562),
     (sym__real_expression, STATE 660), (sym_throw_expression, STATE 908),
     (sym_rethrow_expression, STATE 908), (sym_assignment_expression, STATE 908),
     (sym_assignable_expression, STATE 1940), (sym_function_expression, STATE 962),
     (sym_if_null_expression, STATE 1477), (sym_conditional_expression, STATE 1477),
     (sym_logical_or_expression, STATE 1477), (sym_logical_and_expression, STATE 1477),
     (sym_equality_expression, STATE 1477), (sym_type_cast_expression, STATE 1477),
     (sym_type_test_expression, STATE 1477), (sym_relational_expression, STATE 1477),
     (sym_bitwise_or_expression, STATE 1477), (sym_bitwise_xor_expression, STATE 1477),
     (sym_bitwise_and_expression, STATE 1477), (sym_shift_expression, STATE 1477),
     (sym_additive_expression, STATE 1477), (sym_multiplicative_expression, STATE 1477),
     (sym__unary_expression, STATE 1121), (sym_unary_expression, STATE 1303),
     (sym__postfix_expression, STATE 1303), (sym_postfix_expression, STATE 1301),
     (sym_spread_element, STATE 2660), (sym_prefix_operator, STATE 431),
     (sym_negation_operator, STATE 1450), (sym__exclamation_operator, STATE 1451),
     (sym_tilde_operator, STATE 1385), (sym_await_expression, STATE 1302),
     (sym_new_expression, STATE 962), (sym_const_object_expression, STATE 962),
     (sym__primary, STATE 668), (sym_parenthesized_expression, STATE 962),
     (sym_constructor_invocation, STATE 643), (sym_constructor_tearoff, STATE 962),
     (sym_type_arguments, STATE 3200), (sym_switch_expression, STATE 962),
     (sym__parenthesized_pattern, STATE 3182), (sym_list_pattern, STATE 3182),
     (sym_map_pattern, STATE 3182), (sym_record_pattern, STATE 3182),
     (sym_object_pattern, STATE 3182), (sym__outer_pattern, STATE 3410),
     (sym_pattern_assignment, STATE 908), (sym_if_element, STATE 2660),
     (sym_for_element, STATE 2660), (sym_type_parameters, STATE 2932),
     (sym__type_name, STATE 2661), (sym__formal_parameter_part, STATE 2339),
     (sym_formal_parameter_list, STATE 2020), (sym__strict_formal_parameter_list, STATE 2016),
     (sym__new_builtin, STATE 2079), (sym_this, STATE 962), (sym_super, STATE 1337),
     (sym_comment, STATE 91), (sym_documentation_comment, STATE 91),
     (aux_sym_string_literal_repeat1, STATE 474), (sym_identifier, ACTIONS 494),
     (anon_sym_POUND, ACTIONS 73), (sym_decimal_integer_literal, ACTIONS 75),
     (sym_hex_integer_literal, ACTIONS 77), (sym_decimal_floating_point_literal, ACTIONS 75),
     (anon_sym_true, ACTIONS 79), (anon_sym_false, ACTIONS 81), (anon_sym_DQUOTE, ACTIONS 83),
     (anon_sym_SQUOTE, ACTIONS 85), (anon_sym_DQUOTE_DQUOTE_DQUOTE, ACTIONS 87),
     (anon_sym_SQUOTE_SQUOTE_SQUOTE, ACTIONS 89), (anon_sym_r_DQUOTE, ACTIONS 91),
     (anon_sym_r_SQUOTE, ACTIONS 93), (anon_sym_r_DQUOTE_DQUOTE_DQUOTE, ACTIONS 95),
     (anon_sym_r_SQUOTE_SQUOTE_SQUOTE, ACTIONS 97), (anon_sym_LBRACE, ACTIONS 442),
     (anon_sym_RBRACE, ACTIONS 530), (anon_sym_LBRACK, ACTIONS 103),
     (anon_sym_null, ACTIONS 105), (anon_sym_LPAREN, ACTIONS 498), (anon_sym_throw, ACTIONS 109),
     (anon_sym_LT, ACTIONS 111), (sym_increment_operator, ACTIONS 113),
     (anon_sym_DOT_DOT_DOT, ACTIONS 167), (sym_minus_operator, ACTIONS 117),
     (anon_sym_BANG, ACTIONS 119), (anon_sym_TILDE, ACTIONS 121), (anon_sym_await, ACTIONS 410),
     (anon_sym_switch, ACTIONS 412), (anon_sym_if, ACTIONS 414), (anon_sym_for, ACTIONS 416),
     (sym_rethrow_builtin, ACTIONS 151), (anon_sym_new, ACTIONS 155),
     (sym_const_builtin, ACTIONS 478), (anon_sym_this, ACTIONS 159),
     (anon_sym_super, ACTIONS 161), (anon_sym_SLASH_SLASH, ACTIONS 3),
     (anon_sym_SLASH_STAR, ACTIONS 5), (anon_sym_SLASH_SLASH_SLASH, ACTIONS 7),
     (sym__block_comment, ACTIONS 9), (sym__documentation_block_comment, ACTIONS 11)]"

lemma row_ok_91: "table_row_ok 91 ts_parse_table_91"
  by (simp add: row_simps ts_parse_table_91_def)

definition ts_parse_table_92 :: table_row where
  "ts_parse_table_92 = [
     (sym__bool_literal, STATE 989), (sym__numeric_literal, STATE 989),
     (sym__literal, STATE 962), (sym_symbol_literal, STATE 989), (sym_true, STATE 900),
     (sym_false, STATE 900), (sym_string_literal, STATE 989),
     (sym__string_literal_double_quotes, STATE 627),
     (sym__string_literal_single_quotes, STATE 627),
     (sym__string_literal_double_quotes_multiple, STATE 627),
     (sym__string_literal_single_quotes_multiple, STATE 627),
     (sym__raw_string_literal_double_quotes, STATE 627),
     (sym__raw_string_literal_single_quotes, STATE 627),
     (sym__raw_string_literal_double_quotes_multiple, STATE 627),
     (sym__raw_string_literal_single_quotes_multiple, STATE 627), (sym_list_literal, STATE 989),
     (sym_set_or_map_literal, STATE 989), (sym_pair, STATE 2660), (sym__element, STATE 2853),
     (sym_null_literal, STATE 989), (sym_record_literal, STATE 989),
     (sym__record_literal_no_const, STATE 924), (sym__expression, STATE 2562),
     (sym__real_expression, STATE 660), (sym_throw_expression, STATE 908),
     (sym_rethrow_expression, STATE 908), (sym_assignment_expression, STATE 908),
     (sym_assignable_expression, STATE 1940), (sym_function_expression, STATE 962),
     (sym_if_null_expression, STATE 1477), (sym_conditional_expression, STATE 1477),
     (sym_logical_or_expression, STATE 1477), (sym_logical_and_expression, STATE 1477),
     (sym_equality_expression, STATE 1477), (sym_type_cast_expression, STATE 1477),
     (sym_type_test_expression, STATE 1477), (sym_relational_expression, STATE 1477),
     (sym_bitwise_or_expression, STATE 1477), (sym_bitwise_xor_expression, STATE 1477),
     (sym_bitwise_and_expression, STATE 1477), (sym_shift_expression, STATE 1477),
     (sym_additive_expression, STATE 1477), (sym_multiplicative_expression, STATE 1477),
     (sym__unary_expression, STATE 1121), (sym_unary_expression, STATE 1303),
     (sym__postfix_expression, STATE 1303), (sym_postfix_expression, STATE 1301),
     (sym_spread_element, STATE 2660), (sym_prefix_operator, STATE 431),
     (sym_negation_operator, STATE 1450), (sym__exclamation_operator, STATE 1451),
     (sym_tilde_operator, STATE 1385), (sym_await_expression, STATE 1302),
     (sym_new_expression, STATE 962), (sym_const_object_expression, STATE 962),
     (sym__primary, STATE 668), (sym_parenthesized_expression, STATE 962),
     (sym_constructor_invocation, STATE 643), (sym_constructor_tearoff, STATE 962),
     (sym_type_arguments, STATE 3200), (sym_switch_expression, STATE 962),
     (sym__parenthesized_pattern, STATE 3182), (sym_list_pattern, STATE 3182),
     (sym_map_pattern, STATE 3182), (sym_record_pattern, STATE 3182),
     (sym_object_pattern, STATE 3182), (sym__outer_pattern, STATE 3410),
     (sym_pattern_assignment, STATE 908), (sym_if_element, STATE 2660),
     (sym_for_element, STATE 2660), (sym_type_parameters, STATE 2932),
     (sym__type_name, STATE 2661), (sym__formal_parameter_part, STATE 2339),
     (sym_formal_parameter_list, STATE 2020), (sym__strict_formal_parameter_list, STATE 2016),
     (sym__new_builtin, STATE 2079), (sym_this, STATE 962), (sym_super, STATE 1337),
     (sym_comment, STATE 92), (sym_documentation_comment, STATE 92),
     (aux_sym_string_literal_repeat1, STATE 474), (sym_identifier, ACTIONS 494),
     (anon_sym_POUND, ACTIONS 73), (sym_decimal_integer_literal, ACTIONS 75),
     (sym_hex_integer_literal, ACTIONS 77), (sym_decimal_floating_point_literal, ACTIONS 75),
     (anon_sym_true, ACTIONS 79), (anon_sym_false, ACTIONS 81), (anon_sym_DQUOTE, ACTIONS 83),
     (anon_sym_SQUOTE, ACTIONS 85), (anon_sym_DQUOTE_DQUOTE_DQUOTE, ACTIONS 87),
     (anon_sym_SQUOTE_SQUOTE_SQUOTE, ACTIONS 89), (anon_sym_r_DQUOTE, ACTIONS 91),
     (anon_sym_r_SQUOTE, ACTIONS 93), (anon_sym_r_DQUOTE_DQUOTE_DQUOTE, ACTIONS 95),
     (anon_sym_r_SQUOTE_SQUOTE_SQUOTE, ACTIONS 97), (anon_sym_LBRACE, ACTIONS 442),
     (anon_sym_LBRACK, ACTIONS 103), (anon_sym_RBRACK, ACTIONS 532),
     (anon_sym_null, ACTIONS 105), (anon_sym_LPAREN, ACTIONS 498), (anon_sym_throw, ACTIONS 109),
     (anon_sym_LT, ACTIONS 111), (sym_increment_operator, ACTIONS 113),
     (anon_sym_DOT_DOT_DOT, ACTIONS 167), (sym_minus_operator, ACTIONS 117),
     (anon_sym_BANG, ACTIONS 119), (anon_sym_TILDE, ACTIONS 121), (anon_sym_await, ACTIONS 410),
     (anon_sym_switch, ACTIONS 412), (anon_sym_if, ACTIONS 414), (anon_sym_for, ACTIONS 416),
     (sym_rethrow_builtin, ACTIONS 151), (anon_sym_new, ACTIONS 155),
     (sym_const_builtin, ACTIONS 478), (anon_sym_this, ACTIONS 159),
     (anon_sym_super, ACTIONS 161), (anon_sym_SLASH_SLASH, ACTIONS 3),
     (anon_sym_SLASH_STAR, ACTIONS 5), (anon_sym_SLASH_SLASH_SLASH, ACTIONS 7),
     (sym__block_comment, ACTIONS 9), (sym__documentation_block_comment, ACTIONS 11)]"

lemma row_ok_92: "table_row_ok 92 ts_parse_table_92"
  by (simp add: row_simps ts_parse_table_92_def)

definition ts_parse_table_93 :: table_row where
  "ts_parse_table_93 = [
     (sym__bool_literal, STATE 989), (sym__numeric_literal, STATE 989),
     (sym__literal, STATE 962), (sym_symbol_literal, STATE 989), (sym_true, STATE 900),
     (sym_false, STATE 900), (sym_string_literal, STATE 989),
     (sym__string_literal_double_quotes, STATE 627),
     (sym__string_literal_single_quotes, STATE 627),
     (sym__string_literal_double_quotes_multiple, STATE 627),
     (sym__string_literal_single_quotes_multiple, STATE 627),
     (sym__raw_string_literal_double_quotes, STATE 627),
     (sym__raw_string_literal_single_quotes, STATE 627),
     (sym__raw_string_literal_double_quotes_multiple, STATE 627),
     (sym__raw_string_literal_single_quotes_multiple, STATE 627), (sym_list_literal, STATE 989),
     (sym_set_or_map_literal, STATE 989), (sym_pair, STATE 2660), (sym__element, STATE 2838),
     (sym_null_literal, STATE 989), (sym_record_literal, STATE 989),
     (sym__record_literal_no_const, STATE 924), (sym__expression, STATE 2562),
     (sym__real_expression, STATE 660), (sym_throw_expression, STATE 908),
     (sym_rethrow_expression, STATE 908), (sym_assignment_expression, STATE 908),
     (sym_assignable_expression, STATE 1940), (sym_function_expression, STATE 962),
     (sym_if_null_expression, STATE 1477), (sym_conditional_expression, STATE 1477),
     (sym_logical_or_expression, STATE 1477), (sym_logical_and_expression, STATE 1477),
     (sym_equality_expression, STATE 1477), (sym_type_cast_expression, STATE 1477),
     (sym_type_test_expression, STATE 1477), (sym_relational_expression, STATE 1477),
     (sym_bitwise_or_expression, STATE 1477), (sym_bitwise_xor_expression, STATE 1477),
     (sym_bitwise_and_expression, STATE 1477), (sym_shift_expression, STATE 1477),
     (sym_additive_expression, STATE 1477), (sym_multiplicative_expression, STATE 1477),
     (sym__unary_expression, STATE 1121), (sym_unary_expression, STATE 1303),
     (sym__postfix_expression, STATE 1303), (sym_postfix_expression, STATE 1301),
     (sym_spread_element, STATE 2660), (sym_prefix_operator, STATE 431),
     (sym_negation_operator, STATE 1450), (sym__exclamation_operator, STATE 1451),
     (sym_tilde_operator, STATE 1385), (sym_await_expression, STATE 1302),
     (sym_new_expression, STATE 962), (sym_const_object_expression, STATE 962),
     (sym__primary, STATE 668), (sym_parenthesized_expression, STATE 962),
     (sym_constructor_invocation, STATE 643), (sym_constructor_tearoff, STATE 962),
     (sym_type_arguments, STATE 3200), (sym_switch_expression, STATE 962),
     (sym__parenthesized_pattern, STATE 3182), (sym_list_pattern, STATE 3182),
     (sym_map_pattern, STATE 3182), (sym_record_pattern, STATE 3182),
     (sym_object_pattern, STATE 3182), (sym__outer_pattern, STATE 3410),
     (sym_pattern_assignment, STATE 908), (sym_if_element, STATE 2660),
     (sym_for_element, STATE 2660), (sym_type_parameters, STATE 2932),
     (sym__type_name, STATE 2661), (sym__formal_parameter_part, STATE 2339),
     (sym_formal_parameter_list, STATE 2020), (sym__strict_formal_parameter_list, STATE 2016),
     (sym__new_builtin, STATE 2079), (sym_this, STATE 962), (sym_super, STATE 1337),
     (sym_comment, STATE 93), (sym_documentation_comment, STATE 93),
     (aux_sym_string_literal_repeat1, STATE 474), (sym_identifier, ACTIONS 494),
     (anon_sym_POUND, ACTIONS 73), (sym_decimal_integer_literal, ACTIONS 75),
     (sym_hex_integer_literal, ACTIONS 77), (sym_decimal_floating_point_literal, ACTIONS 75),
     (anon_sym_true, ACTIONS 79), (anon_sym_false, ACTIONS 81), (anon_sym_DQUOTE, ACTIONS 83),
     (anon_sym_SQUOTE, ACTIONS 85), (anon_sym_DQUOTE_DQUOTE_DQUOTE, ACTIONS 87),
     (anon_sym_SQUOTE_SQUOTE_SQUOTE, ACTIONS 89), (anon_sym_r_DQUOTE, ACTIONS 91),
     (anon_sym_r_SQUOTE, ACTIONS 93), (anon_sym_r_DQUOTE_DQUOTE_DQUOTE, ACTIONS 95),
     (anon_sym_r_SQUOTE_SQUOTE_SQUOTE, ACTIONS 97), (anon_sym_LBRACE, ACTIONS 442),
     (anon_sym_LBRACK, ACTIONS 103), (anon_sym_RBRACK, ACTIONS 534),
     (anon_sym_null, ACTIONS 105), (anon_sym_LPAREN, ACTIONS 498), (anon_sym_throw, ACTIONS 109),
     (anon_sym_LT, ACTIONS 111), (sym_increment_operator, ACTIONS 113),
     (anon_sym_DOT_DOT_DOT, ACTIONS 167), (sym_minus_operator, ACTIONS 117),
     (anon_sym_BANG, ACTIONS 119), (anon_sym_TILDE, ACTIONS 121), (anon_sym_await, ACTIONS 410),
     (anon_sym_switch, ACTIONS 412), (anon_sym_if, ACTIONS 414), (anon_sym_for, ACTIONS 416),
     (sym_rethrow_builtin, ACTIONS 151), (anon_sym_new, ACTIONS 155),
     (sym_const_builtin, ACTIONS 478), (anon_sym_this, ACTIONS 159),
     (anon_sym_super, ACTIONS 161), (anon_sym_SLASH_SLASH, ACTIONS 3),
     (anon_sym_SLASH_STAR, ACTIONS 5), (anon_sym_SLASH_SLASH_SLASH, ACTIONS 7),
     (sym__block_comment, ACTIONS 9), (sym__documentation_block_comment, ACTIONS 11)]"

lemma row_ok_93: "table_row_ok 93 ts_parse_table_93"
  by (simp add: row_simps ts_parse_table_93_def)

definition ts_parse_table_94 :: table_row where
  "ts_parse_table_94 = [
     (sym__bool_literal, STATE 989), (sym__numeric_literal, STATE 989),
     (sym__literal, STATE 962), (sym_symbol_literal, STATE 989), (sym_true, STATE 900),
     (sym_false, STATE 900), (sym_string_literal, STATE 989),
     (sym__string_literal_double_quotes, STATE 627),
     (sym__string_literal_single_quotes, STATE 627),
     (sym__string_literal_double_quotes_multiple, STATE 627),
     (sym__string_literal_single_quotes_multiple, STATE 627),
     (sym__raw_string_literal_double_quotes, STATE 627),
     (sym__raw_string_literal_single_quotes, STATE 627),
     (sym__raw_string_literal_double_quotes_multiple, STATE 627),
     (sym__raw_string_literal_single_quotes_multiple, STATE 627), (sym_list_literal, STATE 989),
     (sym_set_or_map_literal, STATE 989), (sym_pair, STATE 2660), (sym__element, STATE 2838),
     (sym_null_literal, STATE 989), (sym_record_literal, STATE 989),
     (sym__record_literal_no_const, STATE 924), (sym__expression, STATE 2562),
     (sym__real_expression, STATE 660), (sym_throw_expression, STATE 908),
     (sym_rethrow_expression, STATE 908), (sym_assignment_expression, STATE 908),
     (sym_assignable_expression, STATE 1940), (sym_function_expression, STATE 962),
     (sym_if_null_expression, STATE 1477), (sym_conditional_expression, STATE 1477),
     (sym_logical_or_expression, STATE 1477), (sym_logical_and_expression, STATE 1477),
     (sym_equality_expression, STATE 1477), (sym_type_cast_expression, STATE 1477),
     (sym_type_test_expression, STATE 1477), (sym_relational_expression, STATE 1477),
     (sym_bitwise_or_expression, STATE 1477), (sym_bitwise_xor_expression, STATE 1477),
     (sym_bitwise_and_expression, STATE 1477), (sym_shift_expression, STATE 1477),
     (sym_additive_expression, STATE 1477), (sym_multiplicative_expression, STATE 1477),
     (sym__unary_expression, STATE 1121), (sym_unary_expression, STATE 1303),
     (sym__postfix_expression, STATE 1303), (sym_postfix_expression, STATE 1301),
     (sym_spread_element, STATE 2660), (sym_prefix_operator, STATE 431),
     (sym_negation_operator, STATE 1450), (sym__exclamation_operator, STATE 1451),
     (sym_tilde_operator, STATE 1385), (sym_await_expression, STATE 1302),
     (sym_new_expression, STATE 962), (sym_const_object_expression, STATE 962),
     (sym__primary, STATE 668), (sym_parenthesized_expression, STATE 962),
     (sym_constructor_invocation, STATE 643), (sym_constructor_tearoff, STATE 962),
     (sym_type_arguments, STATE 3200), (sym_switch_expression, STATE 962),
     (sym__parenthesized_pattern, STATE 3182), (sym_list_pattern, STATE 3182),
     (sym_map_pattern, STATE 3182), (sym_record_pattern, STATE 3182),
     (sym_object_pattern, STATE 3182), (sym__outer_pattern, STATE 3410),
     (sym_pattern_assignment, STATE 908), (sym_if_element, STATE 2660),
     (sym_for_element, STATE 2660), (sym_type_parameters, STATE 2932),
     (sym__type_name, STATE 2661), (sym__formal_parameter_part, STATE 2339),
     (sym_formal_parameter_list, STATE 2020), (sym__strict_formal_parameter_list, STATE 2016),
     (sym__new_builtin, STATE 2079), (sym_this, STATE 962), (sym_super, STATE 1337),
     (sym_comment, STATE 94), (sym_documentation_comment, STATE 94),
     (aux_sym_string_literal_repeat1, STATE 474), (sym_identifier, ACTIONS 494),
     (anon_sym_POUND, ACTIONS 73), (sym_decimal_integer_literal, ACTIONS 75),
     (sym_hex_integer_literal, ACTIONS 77), (sym_decimal_floating_point_literal, ACTIONS 75),
     (anon_sym_true, ACTIONS 79), (anon_sym_false, ACTIONS 81), (anon_sym_DQUOTE, ACTIONS 83),
     (anon_sym_SQUOTE, ACTIONS 85), (anon_sym_DQUOTE_DQUOTE_DQUOTE, ACTIONS 87),
     (anon_sym_SQUOTE_SQUOTE_SQUOTE, ACTIONS 89), (anon_sym_r_DQUOTE, ACTIONS 91),
     (anon_sym_r_SQUOTE, ACTIONS 93), (anon_sym_r_DQUOTE_DQUOTE_DQUOTE, ACTIONS 95),
     (anon_sym_r_SQUOTE_SQUOTE_SQUOTE, ACTIONS 97), (anon_sym_LBRACE, ACTIONS 442),
     (anon_sym_LBRACK, ACTIONS 103), (anon_sym_RBRACK, ACTIONS 536),
     (anon_sym_null, ACTIONS 105), (anon_sym_LPAREN, ACTIONS 498), (anon_sym_throw, ACTIONS 109),
     (anon_sym_LT, ACTIONS 111), (sym_increment_operator, ACTIONS 113),
     (anon_sym_DOT_DOT_DOT, ACTIONS 167), (sym_minus_operator, ACTIONS 117),
     (anon_sym_BANG, ACTIONS 119), (anon_sym_TILDE, ACTIONS 121), (anon_sym_await, ACTIONS 410),
     (anon_sym_switch, ACTIONS 412), (anon_sym_if, ACTIONS 414), (anon_sym_for, ACTIONS 416),
     (sym_rethrow_builtin, ACTIONS 151), (anon_sym_new, ACTIONS 155),
     (sym_const_builtin, ACTIONS 478), (anon_sym_this, ACTIONS 159),
     (anon_sym_super, ACTIONS 161), (anon_sym_SLASH_SLASH, ACTIONS 3),
     (anon_sym_SLASH_STAR, ACTIONS 5), (anon_sym_SLASH_SLASH_SLASH, ACTIONS 7),
     (sym__block_comment, ACTIONS 9), (sym__documentation_block_comment, ACTIONS 11)]"

lemma row_ok_94: "table_row_ok 94 ts_parse_table_94"
  by (simp add: row_simps ts_parse_table_94_def)

definition ts_parse_table_95 :: table_row where
  "ts_parse_table_95 = [
     (sym__bool_literal, STATE 989), (sym__numeric_literal, STATE 989),
     (sym__literal, STATE 962), (sym_symbol_literal, STATE 989), (sym_true, STATE 900),
     (sym_false, STATE 900), (sym_string_literal, STATE 989),
     (sym__string_literal_double_quotes, STATE 627),
     (sym__string_literal_single_quotes, STATE 627),
     (sym__string_literal_double_quotes_multiple, STATE 627),
     (sym__string_literal_single_quotes_multiple, STATE 627),
     (sym__raw_string_literal_double_quotes, STATE 627),
     (sym__raw_string_literal_single_quotes, STATE 627),
     (sym__raw_string_literal_double_quotes_multiple, STATE 627),
     (sym__raw_string_literal_single_quotes_multiple, STATE 627), (sym_list_literal, STATE 989),
     (sym_set_or_map_literal, STATE 989), (sym_pair, STATE 2660), (sym__element, STATE 2838),
     (sym_null_literal, STATE 989), (sym_record_literal, STATE 989),
     (sym__record_literal_no_const, STATE 924), (sym__expression, STATE 2562),
     (sym__real_expression, STATE 660), (sym_throw_expression, STATE 908),
     (sym_rethrow_expression, STATE 908), (sym_assignment_expression, STATE 908),
     (sym_assignable_expression, STATE 1940), (sym_function_expression, STATE 962),
     (sym_if_null_expression, STATE 1477), (sym_conditional_expression, STATE 1477),
     (sym_logical_or_expression, STATE 1477), (sym_logical_and_expression, STATE 1477),
     (sym_equality_expression, STATE 1477), (sym_type_cast_expression, STATE 1477),
     (sym_type_test_expression, STATE 1477), (sym_relational_expression, STATE 1477),
     (sym_bitwise_or_expression, STATE 1477), (sym_bitwise_xor_expression, STATE 1477),
     (sym_bitwise_and_expression, STATE 1477), (sym_shift_expression, STATE 1477),
     (sym_additive_expression, STATE 1477), (sym_multiplicative_expression, STATE 1477),
     (sym__unary_expression, STATE 1121), (sym_unary_expression, STATE 1303),
     (sym__postfix_expression, STATE 1303), (sym_postfix_expression, STATE 1301),
     (sym_spread_element, STATE 2660), (sym_prefix_operator, STATE 431),
     (sym_negation_operator, STATE 1450), (sym__exclamation_operator, STATE 1451),
     (sym_tilde_operator, STATE 1385), (sym_await_expression, STATE 1302),
     (sym_new_expression, STATE 962), (sym_const_object_expression, STATE 962),
     (sym__primary, STATE 668), (sym_parenthesized_expression, STATE 962),
     (sym_constructor_invocation, STATE 643), (sym_constructor_tearoff, STATE 962),
     (sym_type_arguments, STATE 3200), (sym_switch_expression, STATE 962),
     (sym__parenthesized_pattern, STATE 3182), (sym_list_pattern, STATE 3182),
     (sym_map_pattern, STATE 3182), (sym_record_pattern, STATE 3182),
     (sym_object_pattern, STATE 3182), (sym__outer_pattern, STATE 3410),
     (sym_pattern_assignment, STATE 908), (sym_if_element, STATE 2660),
     (sym_for_element, STATE 2660), (sym_type_parameters, STATE 2932),
     (sym__type_name, STATE 2661), (sym__formal_parameter_part, STATE 2339),
     (sym_formal_parameter_list, STATE 2020), (sym__strict_formal_parameter_list, STATE 2016),
     (sym__new_builtin, STATE 2079), (sym_this, STATE 962), (sym_super, STATE 1337),
     (sym_comment, STATE 95), (sym_documentation_comment, STATE 95),
     (aux_sym_string_literal_repeat1, STATE 474), (sym_identifier, ACTIONS 494),
     (anon_sym_POUND, ACTIONS 73), (sym_decimal_integer_literal, ACTIONS 75),
     (sym_hex_integer_literal, ACTIONS 77), (sym_decimal_floating_point_literal, ACTIONS 75),
     (anon_sym_true, ACTIONS 79), (anon_sym_false, ACTIONS 81), (anon_sym_DQUOTE, ACTIONS 83),
     (anon_sym_SQUOTE, ACTIONS 85), (anon_sym_DQUOTE_DQUOTE_DQUOTE, ACTIONS 87),
     (anon_sym_SQUOTE_SQUOTE_SQUOTE, ACTIONS 89), (anon_sym_r_DQUOTE, ACTIONS 91),
     (anon_sym_r_SQUOTE, ACTIONS 93), (anon_sym_r_DQUOTE_DQUOTE_DQUOTE, ACTIONS 95),
     (anon_sym_r_SQUOTE_SQUOTE_SQUOTE, ACTIONS 97), (anon_sym_LBRACE, ACTIONS 442),
     (anon_sym_RBRACE, ACTIONS 538), (anon_sym_LBRACK, ACTIONS 103),
     (anon_sym_null, ACTIONS 105), (anon_sym_LPAREN, ACTIONS 498), (anon_sym_throw, ACTIONS 109),
     (anon_sym_LT, ACTIONS 111), (sym_increment_operator, ACTIONS 113),
     (anon_sym_DOT_DOT_DOT, ACTIONS 167), (sym_minus_operator, ACTIONS 117),
     (anon_sym_BANG, ACTIONS 119), (anon_sym_TILDE, ACTIONS 121), (anon_sym_await, ACTIONS 410),
     (anon_sym_switch, ACTIONS 412), (anon_sym_if, ACTIONS 414), (anon_sym_for, ACTIONS 416),
     (sym_rethrow_builtin, ACTIONS 151), (anon_sym_new, ACTIONS 155),
     (sym_const_builtin, ACTIONS 478), (anon_sym_this, ACTIONS 159),
     (anon_sym_super, ACTIONS 161), (anon_sym_SLASH_SLASH, ACTIONS 3),
     (anon_sym_SLASH_STAR, ACTIONS 5), (anon_sym_SLASH_SLASH_SLASH, ACTIONS 7),
     (sym__block_comment, ACTIONS 9), (sym__documentation_block_comment, ACTIONS 11)]"

lemma row_ok_95: "table_row_ok 95 ts_parse_table_95"
  by (simp add: row_simps ts_parse_table_95_def)

definition ts_parse_table_96 :: table_row where
  "ts_parse_table_96 = [
     (sym__bool_literal, STATE 989), (sym__numeric_literal, STATE 989),
     (sym__literal, STATE 962), (sym_symbol_literal, STATE 989), (sym_true, STATE 900),
     (sym_false, STATE 900), (sym_string_literal, STATE 989),
     (sym__string_literal_double_quotes, STATE 627),
     (sym__string_literal_single_quotes, STATE 627),
     (sym__string_literal_double_quotes_multiple, STATE 627),
     (sym__string_literal_single_quotes_multiple, STATE 627),
     (sym__raw_string_literal_double_quotes, STATE 627),
     (sym__raw_string_literal_single_quotes, STATE 627),
     (sym__raw_string_literal_double_quotes_multiple, STATE 627),
     (sym__raw_string_literal_single_quotes_multiple, STATE 627), (sym_list_literal, STATE 989),
     (sym_set_or_map_literal, STATE 989), (sym_pair, STATE 2660), (sym__element, STATE 2838),
     (sym_null_literal, STATE 989), (sym_record_literal, STATE 989),
     (sym__record_literal_no_const, STATE 924), (sym__expression, STATE 2562),
     (sym__real_expression, STATE 660), (sym_throw_expression, STATE 908),
     (sym_rethrow_expression, STATE 908), (sym_assignment_expression, STATE 908),
     (sym_assignable_expression, STATE 1940), (sym_function_expression, STATE 962),
     (sym_if_null_expression, STATE 1477), (sym_conditional_expression, STATE 1477),
     (sym_logical_or_expression, STATE 1477), (sym_logical_and_expression, STATE 1477),
     (sym_equality_expression, STATE 1477), (sym_type_cast_expression, STATE 1477),
     (sym_type_test_expression, STATE 1477), (sym_relational_expression, STATE 1477),
     (sym_bitwise_or_expression, STATE 1477), (sym_bitwise_xor_expression, STATE 1477),
     (sym_bitwise_and_expression, STATE 1477), (sym_shift_expression, STATE 1477),
     (sym_additive_expression, STATE 1477), (sym_multiplicative_expression, STATE 1477),
     (sym__unary_expression, STATE 1121), (sym_unary_expression, STATE 1303),
     (sym__postfix_expression, STATE 1303), (sym_postfix_expression, STATE 1301),
     (sym_spread_element, STATE 2660), (sym_prefix_operator, STATE 431),
     (sym_negation_operator, STATE 1450), (sym__exclamation_operator, STATE 1451),
     (sym_tilde_operator, STATE 1385), (sym_await_expression, STATE 1302),
     (sym_new_expression, STATE 962), (sym_const_object_expression, STATE 962),
     (sym__primary, STATE 668), (sym_parenthesized_expression, STATE 962),
     (sym_constructor_invocation, STATE 643), (sym_constructor_tearoff, STATE 962),
     (sym_type_arguments, STATE 3200), (sym_switch_expression, STATE 962),
     (sym__parenthesized_pattern, STATE 3182), (sym_list_pattern, STATE 3182),
     (sym_map_pattern, STATE 3182), (sym_record_pattern, STATE 3182),
     (sym_object_pattern, STATE 3182), (sym__outer_pattern, STATE 3410),
     (sym_pattern_assignment, STATE 908), (sym_if_element, STATE 2660),
     (sym_for_element, STATE 2660), (sym_type_parameters, STATE 2932),
     (sym__type_name, STATE 2661), (sym__formal_parameter_part, STATE 2339),
     (sym_formal_parameter_list, STATE 2020), (sym__strict_formal_parameter_list, STATE 2016),
     (sym__new_builtin, STATE 2079), (sym_this, STATE 962), (sym_super, STATE 1337),
     (sym_comment, STATE 96), (sym_documentation_comment, STATE 96),
     (aux_sym_string_literal_repeat1, STATE 474), (sym_identifier, ACTIONS 494),
     (anon_sym_POUND, ACTIONS 73), (sym_decimal_integer_literal, ACTIONS 75),
     (sym_hex_integer_literal, ACTIONS 77), (sym_decimal_floating_point_literal, ACTIONS 75),
     (anon_sym_true, ACTIONS 79), (anon_sym_false, ACTIONS 81), (anon_sym_DQUOTE, ACTIONS 83),
     (anon_sym_SQUOTE, ACTIONS 85), (anon_sym_DQUOTE_DQUOTE_DQUOTE, ACTIONS 87),
     (anon_sym_SQUOTE_SQUOTE_SQUOTE, ACTIONS 89), (anon_sym_r_DQUOTE, ACTIONS 91),
     (anon_sym_r_SQUOTE, ACTIONS 93), (anon_sym_r_DQUOTE_DQUOTE_DQUOTE, ACTIONS 95),
     (anon_sym_r_SQUOTE_SQUOTE_SQUOTE, ACTIONS 97), (anon_sym_LBRACE, ACTIONS 442),
     (anon_sym_LBRACK, ACTIONS 103), (anon_sym_RBRACK, ACTIONS 540),
     (anon_sym_null, ACTIONS 105), (anon_sym_LPAREN, ACTIONS 498), (anon_sym_throw, ACTIONS 109),
     (anon_sym_LT, ACTIONS 111), (sym_increment_operator, ACTIONS 113),
     (anon_sym_DOT_DOT_DOT, ACTIONS 167), (sym_minus_operator, ACTIONS 117),
     (anon_sym_BANG, ACTIONS 119), (anon_sym_TILDE, ACTIONS 121), (anon_sym_await, ACTIONS 410),
     (anon_sym_switch, ACTIONS 412), (anon_sym_if, ACTIONS 414), (anon_sym_for, ACTIONS 416),
     (sym_rethrow_builtin, ACTIONS 151), (anon_sym_new, ACTIONS 155),
     (sym_const_builtin, ACTIONS 478), (anon_sym_this, ACTIONS 159),
     (anon_sym_super, ACTIONS 161), (anon_sym_SLASH_SLASH, ACTIONS 3),
     (anon_sym_SLASH_STAR, ACTIONS 5), (anon_sym_SLASH_SLASH_SLASH, ACTIONS 7),
     (sym__block_comment, ACTIONS 9), (sym__documentation_block_comment, ACTIONS 11)]"

lemma row_ok_96: "table_row_ok 96 ts_parse_table_96"
  by (simp add: row_simps ts_parse_table_96_def)

definition ts_parse_table_97 :: table_row where
  "ts_parse_table_97 = [
     (sym__bool_literal, STATE 989), (sym__numeric_literal, STATE 989),
     (sym__literal, STATE 962), (sym_symbol_literal, STATE 989), (sym_true, STATE 900),
     (sym_false, STATE 900), (sym_string_literal, STATE 989),
     (sym__string_literal_double_quotes, STATE 627),
     (sym__string_literal_single_quotes, STATE 627),
     (sym__string_literal_double_quotes_multiple, STATE 627),
     (sym__string_literal_single_quotes_multiple, STATE 627),
     (sym__raw_string_literal_double_quotes, STATE 627),
     (sym__raw_string_literal_single_quotes, STATE 627),
     (sym__raw_string_literal_double_quotes_multiple, STATE 627),
     (sym__raw_string_literal_single_quotes_multiple, STATE 627), (sym_list_literal, STATE 989),
     (sym_set_or_map_literal, STATE 989), (sym_pair, STATE 2660), (sym__element, STATE 2838),
     (sym_null_literal, STATE 989), (sym_record_literal, STATE 989),
     (sym__record_literal_no_const, STATE 924), (sym__expression, STATE 2562),
     (sym__real_expression, STATE 660), (sym_throw_expression, STATE 908),
     (sym_rethrow_expression, STATE 908), (sym_assignment_expression, STATE 908),
     (sym_assignable_expression, STATE 1940), (sym_function_expression, STATE 962),
     (sym_if_null_expression, STATE 1477), (sym_conditional_expression, STATE 1477),
     (sym_logical_or_expression, STATE 1477), (sym_logical_and_expression, STATE 1477),
     (sym_equality_expression, STATE 1477), (sym_type_cast_expression, STATE 1477),
     (sym_type_test_expression, STATE 1477), (sym_relational_expression, STATE 1477),
     (sym_bitwise_or_expression, STATE 1477), (sym_bitwise_xor_expression, STATE 1477),
     (sym_bitwise_and_expression, STATE 1477), (sym_shift_expression, STATE 1477),
     (sym_additive_expression, STATE 1477), (sym_multiplicative_expression, STATE 1477),
     (sym__unary_expression, STATE 1121), (sym_unary_expression, STATE 1303),
     (sym__postfix_expression, STATE 1303), (sym_postfix_expression, STATE 1301),
     (sym_spread_element, STATE 2660), (sym_prefix_operator, STATE 431),
     (sym_negation_operator, STATE 1450), (sym__exclamation_operator, STATE 1451),
     (sym_tilde_operator, STATE 1385), (sym_await_expression, STATE 1302),
     (sym_new_expression, STATE 962), (sym_const_object_expression, STATE 962),
     (sym__primary, STATE 668), (sym_parenthesized_expression, STATE 962),
     (sym_constructor_invocation, STATE 643), (sym_constructor_tearoff, STATE 962),
     (sym_type_arguments, STATE 3200), (sym_switch_expression, STATE 962),
     (sym__parenthesized_pattern, STATE 3182), (sym_list_pattern, STATE 3182),
     (sym_map_pattern, STATE 3182), (sym_record_pattern, STATE 3182),
     (sym_object_pattern, STATE 3182), (sym__outer_pattern, STATE 3410),
     (sym_pattern_assignment, STATE 908), (sym_if_element, STATE 2660),
     (sym_for_element, STATE 2660), (sym_type_parameters, STATE 2932),
     (sym__type_name, STATE 2661), (sym__formal_parameter_part, STATE 2339),
     (sym_formal_parameter_list, STATE 2020), (sym__strict_formal_parameter_list, STATE 2016),
     (sym__new_builtin, STATE 2079), (sym_this, STATE 962), (sym_super, STATE 1337),
     (sym_comment, STATE 97), (sym_documentation_comment, STATE 97),
     (aux_sym_string_literal_repeat1, STATE 474), (sym_identifier, ACTIONS 494),
     (anon_sym_POUND, ACTIONS 73), (sym_decimal_integer_literal, ACTIONS 75),
     (sym_hex_integer_literal, ACTIONS 77), (sym_decimal_floating_point_literal, ACTIONS 75),
     (anon_sym_true, ACTIONS 79), (anon_sym_false, ACTIONS 81), (anon_sym_DQUOTE, ACTIONS 83),
     (anon_sym_SQUOTE, ACTIONS 85), (anon_sym_DQUOTE_DQUOTE_DQUOTE, ACTIONS 87),
     (anon_sym_SQUOTE_SQUOTE_SQUOTE, ACTIONS 89), (anon_sym_r_DQUOTE, ACTIONS 91),
     (anon_sym_r_SQUOTE, ACTIONS 93), (anon_sym_r_DQUOTE_DQUOTE_DQUOTE, ACTIONS 95),
     (anon_sym_r_SQUOTE_SQUOTE_SQUOTE, ACTIONS 97), (anon_sym_LBRACE, ACTIONS 442),
     (anon_sym_LBRACK, ACTIONS 103), (anon_sym_RBRACK, ACTIONS 542),
     (anon_sym_null, ACTIONS 105), (anon_sym_LPAREN, ACTIONS 498), (anon_sym_throw, ACTIONS 109),
     (anon_sym_LT, ACTIONS 111), (sym_increment_operator, ACTIONS 113),
     (anon_sym_DOT_DOT_DOT, ACTIONS 167), (sym_minus_operator, ACTIONS 117),
     (anon_sym_BANG, ACTIONS 119), (anon_sym_TILDE, ACTIONS 121), (anon_sym_await, ACTIONS 410),
     (anon_sym_switch, ACTIONS 412), (anon_sym_if, ACTIONS 414), (anon_sym_for, ACTIONS 416),
     (sym_rethrow_builtin, ACTIONS 151), (anon_sym_new, ACTIONS 155),
     (sym_const_builtin, ACTIONS 478), (anon_sym_this, ACTIONS 159),
     (anon_sym_super, ACTIONS 161), (anon_sym_SLASH_SLASH, ACTIONS 3),
     (anon_sym_SLASH_STAR, ACTIONS 5), (anon_sym_SLASH_SLASH_SLASH, ACTIONS 7),
     (sym__block_comment, ACTIONS 9), (sym__documentation_block_comment, ACTIONS 11)]"

lemma row_ok_97: "table_row_ok 97 ts_parse_table_97"
  by (simp add: row_simps ts_parse_table_97_def)

definition ts_parse_table_98 :: table_row where
  "ts_parse_table_98 = [
     (sym__bool_literal, STATE 989), (sym__numeric_literal, STATE 989),
     (sym__literal, STATE 962), (sym_symbol_literal, STATE 989), (sym_true, STATE 900),
     (sym_false, STATE 900), (sym_string_literal, STATE 989),
     (sym__string_literal_double_quotes, STATE 627),
     (sym__string_literal_single_quotes, STATE 627),
     (sym__string_literal_double_quotes_multiple, STATE 627),
     (sym__string_literal_single_quotes_multiple, STATE 627),
     (sym__raw_string_literal_double_quotes, STATE 627),
     (sym__raw_string_literal_single_quotes, STATE 627),
     (sym__raw_string_literal_double_quotes_multiple, STATE 627),
     (sym__raw_string_literal_single_quotes_multiple, STATE 627), (sym_list_literal, STATE 989),
     (sym_set_or_map_literal, STATE 989), (sym_pair, STATE 2660), (sym__element, STATE 2838),
     (sym_null_literal, STATE 989), (sym_record_literal, STATE 989),
     (sym__record_literal_no_const, STATE 924), (sym__expression, STATE 2562),
     (sym__real_expression, STATE 660), (sym_throw_expression, STATE 908),
     (sym_rethrow_expression, STATE 908), (sym_assignment_expression, STATE 908),
     (sym_assignable_expression, STATE 1940), (sym_function_expression, STATE 962),
     (sym_if_null_expression, STATE 1477), (sym_conditional_expression, STATE 1477),
     (sym_logical_or_expression, STATE 1477), (sym_logical_and_expression, STATE 1477),
     (sym_equality_expression, STATE 1477), (sym_type_cast_expression, STATE 1477),
     (sym_type_test_expression, STATE 1477), (sym_relational_expression, STATE 1477),
     (sym_bitwise_or_expression, STATE 1477), (sym_bitwise_xor_expression, STATE 1477),
     (sym_bitwise_and_expression, STATE 1477), (sym_shift_expression, STATE 1477),
     (sym_additive_expression, STATE 1477), (sym_multiplicative_expression, STATE 1477),
     (sym__unary_expression, STATE 1121), (sym_unary_expression, STATE 1303),
     (sym__postfix_expression, STATE 1303), (sym_postfix_expression, STATE 1301),
     (sym_spread_element, STATE 2660), (sym_prefix_operator, STATE 431),
     (sym_negation_operator, STATE 1450), (sym__exclamation_operator, STATE 1451),
     (sym_tilde_operator, STATE 1385), (sym_await_expression, STATE 1302),
     (sym_new_expression, STATE 962), (sym_const_object_expression, STATE 962),
     (sym__primary, STATE 668), (sym_parenthesized_expression, STATE 962),
     (sym_constructor_invocation, STATE 643), (sym_constructor_tearoff, STATE 962),
     (sym_type_arguments, STATE 3200), (sym_switch_expression, STATE 962),
     (sym__parenthesized_pattern, STATE 3182), (sym_list_pattern, STATE 3182),
     (sym_map_pattern, STATE 3182), (sym_record_pattern, STATE 3182),
     (sym_object_pattern, STATE 3182), (sym__outer_pattern, STATE 3410),
     (sym_pattern_assignment, STATE 908), (sym_if_element, STATE 2660),
     (sym_for_element, STATE 2660), (sym_type_parameters, STATE 2932),
     (sym__type_name, STATE 2661), (sym__formal_parameter_part, STATE 2339),
     (sym_formal_parameter_list, STATE 2020), (sym__strict_formal_parameter_list, STATE 2016),
     (sym__new_builtin, STATE 2079), (sym_this, STATE 962), (sym_super, STATE 1337),
     (sym_comment, STATE 98), (sym_documentation_comment, STATE 98),
     (aux_sym_string_literal_repeat1, STATE 474), (sym_identifier, ACTIONS 494),
     (anon_sym_POUND, ACTIONS 73), (sym_decimal_integer_literal, ACTIONS 75),
     (sym_hex_integer_literal, ACTIONS 77), (sym_decimal_floating_point_literal, ACTIONS 75),
     (anon_sym_true, ACTIONS 79), (anon_sym_false, ACTIONS 81), (anon_sym_DQUOTE, ACTIONS 83),
     (anon_sym_SQUOTE, ACTIONS 85), (anon_sym_DQUOTE_DQUOTE_DQUOTE, ACTIONS 87),
     (anon_sym_SQUOTE_SQUOTE_SQUOTE, ACTIONS 89), (anon_sym_r_DQUOTE, ACTIONS 91),
     (anon_sym_r_SQUOTE, ACTIONS 93), (anon_sym_r_DQUOTE_DQUOTE_DQUOTE, ACTIONS 95),
     (anon_sym_r_SQUOTE_SQUOTE_SQUOTE, ACTIONS 97), (anon_sym_LBRACE, ACTIONS 442),
     (anon_sym_RBRACE, ACTIONS 544), (anon_sym_LBRACK, ACTIONS 103),
     (anon_sym_null, ACTIONS 105), (anon_sym_LPAREN, ACTIONS 498), (anon_sym_throw, ACTIONS 109),
     (anon_sym_LT, ACTIONS 111), (sym_increment_operator, ACTIONS 113),
     (anon_sym_DOT_DOT_DOT, ACTIONS 167), (sym_minus_operator, ACTIONS 117),
     (anon_sym_BANG, ACTIONS 119), (anon_sym_TILDE, ACTIONS 121), (anon_sym_await, ACTIONS 410),
     (anon_sym_switch, ACTIONS 412), (anon_sym_if, ACTIONS 414), (anon_sym_for, ACTIONS 416),
     (sym_rethrow_builtin, ACTIONS 151), (anon_sym_new, ACTIONS 155),
     (sym_const_builtin, ACTIONS 478), (anon_sym_this, ACTIONS 159),
     (anon_sym_super, ACTIONS 161), (anon_sym_SLASH_SLASH, ACTIONS 3),
     (anon_sym_SLASH_STAR, ACTIONS 5), (anon_sym_SLASH_SLASH_SLASH, ACTIONS 7),
     (sym__block_comment, ACTIONS 9), (sym__documentation_block_comment, ACTIONS 11)]"

lemma row_ok_98: "table_row_ok 98 ts_parse_table_98"
  by (simp add: row_simps ts_parse_table_98_def)

definition ts_parse_table_99 :: table_row where
  "ts_parse_table_99 = [
     (sym__bool_literal, STATE 989), (sym__numeric_literal, STATE 989),
     (sym__literal, STATE 962), (sym_symbol_literal, STATE 989), (sym_true, STATE 900),
     (sym_false, STATE 900), (sym_string_literal, STATE 989),
     (sym__string_literal_double_quotes, STATE 627),
     (sym__string_literal_single_quotes, STATE 627),
     (sym__string_literal_double_quotes_multiple, STATE 627),
     (sym__string_literal_single_quotes_multiple, STATE 627),
     (sym__raw_string_literal_double_quotes, STATE 627),
     (sym__raw_string_literal_single_quotes, STATE 627),
     (sym__raw_string_literal_double_quotes_multiple, STATE 627),
     (sym__raw_string_literal_single_quotes_multiple, STATE 627), (sym_list_literal, STATE 989),
     (sym_set_or_map_literal, STATE 989), (sym_pair, STATE 2660), (sym__element, STATE 2838),
     (sym_null_literal, STATE 989), (sym_record_literal, STATE 989),
     (sym__record_literal_no_const, STATE 924), (sym__expression, STATE 2562),
     (sym__real_expression, STATE 660), (sym_throw_expression, STATE 908),
     (sym_rethrow_expression, STATE 908), (sym_assignment_expression, STATE 908),
     (sym_assignable_expression, STATE 1940), (sym_function_expression, STATE 962),
     (sym_if_null_expression, STATE 1477), (sym_conditional_expression, STATE 1477),
     (sym_logical_or_expression, STATE 1477), (sym_logical_and_expression, STATE 1477),
     (sym_equality_expression, STATE 1477), (sym_type_cast_expression, STATE 1477),
     (sym_type_test_expression, STATE 1477), (sym_relational_expression, STATE 1477),
     (sym_bitwise_or_expression, STATE 1477), (sym_bitwise_xor_expression, STATE 1477),
     (sym_bitwise_and_expression, STATE 1477), (sym_shift_expression, STATE 1477),
     (sym_additive_expression, STATE 1477), (sym_multiplicative_expression, STATE 1477),
     (sym__unary_expression, STATE 1121), (sym_unary_expression, STATE 1303),
     (sym__postfix_expression, STATE 1303), (sym_postfix_expression, STATE 1301),
     (sym_spread_element, STATE 2660), (sym_prefix_operator, STATE 431),
     (sym_negation_operator, STATE 1450), (sym__exclamation_operator, STATE 1451),
     (sym_tilde_operator, STATE 1385), (sym_await_expression, STATE 1302),
     (sym_new_expression, STATE 962), (sym_const_object_expression, STATE 962),
     (sym__primary, STATE 668), (sym_parenthesized_expression, STATE 962),
     (sym_constructor_invocation, STATE 643), (sym_constructor_tearoff, STATE 962),
     (sym_type_arguments, STATE 3200), (sym_switch_expression, STATE 962),
     (sym__parenthesized_pattern, STATE 3182), (sym_list_pattern, STATE 3182),
     (sym_map_pattern, STATE 3182), (sym_record_pattern, STATE 3182),
     (sym_object_pattern, STATE 3182), (sym__outer_pattern, STATE 3410),
     (sym_pattern_assignment, STATE 908), (sym_if_element, STATE 2660),
     (sym_for_element, STATE 2660), (sym_type_parameters, STATE 2932),
     (sym__type_name, STATE 2661), (sym__formal_parameter_part, STATE 2339),
     (sym_formal_parameter_list, STATE 2020), (sym__strict_formal_parameter_list, STATE 2016),
     (sym__new_builtin, STATE 2079), (sym_this, STATE 962), (sym_super, STATE 1337),
     (sym_comment, STATE 99), (sym_documentation_comment, STATE 99),
     (aux_sym_string_literal_repeat1, STATE 474), (sym_identifier, ACTIONS 494),
     (anon_sym_POUND, ACTIONS 73), (sym_decimal_integer_literal, ACTIONS 75),
     (sym_hex_integer_literal, ACTIONS 77), (sym_decimal_floating_point_literal, ACTIONS 75),
     (anon_sym_true, ACTIONS 79), (anon_sym_false, ACTIONS 81), (anon_sym_DQUOTE, ACTIONS 83),
     (anon_sym_SQUOTE, ACTIONS 85), (anon_sym_DQUOTE_DQUOTE_DQUOTE, ACTIONS 87),
     (anon_sym_SQUOTE_SQUOTE_SQUOTE, ACTIONS 89), (anon_sym_r_DQUOTE, ACTIONS 91),
     (anon_sym_r_SQUOTE, ACTIONS 93), (anon_sym_r_DQUOTE_DQUOTE_DQUOTE, ACTIONS 95),
     (anon_sym_r_SQUOTE_SQUOTE_SQUOTE, ACTIONS 97), (anon_sym_LBRACE, ACTIONS 442),
     (anon_sym_RBRACE, ACTIONS 540), (anon_sym_LBRACK, ACTIONS 103),
     (anon_sym_null, ACTIONS 105), (anon_sym_LPAREN, ACTIONS 498), (anon_sym_throw, ACTIONS 109),
     (anon_sym_LT, ACTIONS 111), (sym_increment_operator, ACTIONS 113),
     (anon_sym_DOT_DOT_DOT, ACTIONS 167), (sym_minus_operator, ACTIONS 117),
     (anon_sym_BANG, ACTIONS 119), (anon_sym_TILDE, ACTIONS 121), (anon_sym_await, ACTIONS 410),
     (anon_sym_switch, ACTIONS 412), (anon_sym_if, ACTIONS 414), (anon_sym_for, ACTIONS 416),
     (sym_rethrow_builtin, ACTIONS 151), (anon_sym_new, ACTIONS 155),
     (sym_const_builtin, ACTIONS 478), (anon_sym_this, ACTIONS 159),
     (anon_sym_super, ACTIONS 161), (anon_sym_SLASH_SLASH, ACTIONS 3),
     (anon_sym_SLASH_STAR, ACTIONS 5), (anon_sym_SLASH_SLASH_SLASH, ACTIONS 7),
     (sym__block_comment, ACTIONS 9), (sym__documentation_block_comment, ACTIONS 11)]"

lemma row_ok_99: "table_row_ok 99 ts_parse_table_99"
  by (simp add: row_simps ts_parse_table_99_def)

definition ts_parse_table_100 :: table_row where
  "ts_parse_table_100 = [
     (sym__bool_literal, STATE 989), (sym__numeric_literal, STATE 989),
     (sym__literal, STATE 962), (sym_symbol_literal, STATE 989), (sym_true, STATE 900),
     (sym_false, STATE 900), (sym_string_literal, STATE 989),
     (sym__string_literal_double_quotes, STATE 627),
     (sym__string_literal_single_quotes, STATE 627),
     (sym__string_literal_double_quotes_multiple, STATE 627),
     (sym__string_literal_single_quotes_multiple, STATE 627),
     (sym__raw_string_literal_double_quotes, STATE 627),
     (sym__raw_string_literal_single_quotes, STATE 627),
     (sym__raw_string_literal_double_quotes_multiple, STATE 627),
     (sym__raw_string_literal_single_quotes_multiple, STATE 627), (sym_list_literal, STATE 989),
     (sym_set_or_map_literal, STATE 989), (sym_pair, STATE 2660), (sym__element, STATE 2838),
     (sym_null_literal, STATE 989), (sym_record_literal, STATE 989),
     (sym__record_literal_no_const, STATE 924), (sym__expression, STATE 2562),
     (sym__real_expression, STATE 660), (sym_throw_expression, STATE 908),
     (sym_rethrow_expression, STATE 908), (sym_assignment_expression, STATE 908),
     (sym_assignable_expression, STATE 1940), (sym_function_expression, STATE 962),
     (sym_if_null_expression, STATE 1477), (sym_conditional_expression, STATE 1477),
     (sym_logical_or_expression, STATE 1477), (sym_logical_and_expression, STATE 1477),
     (sym_equality_expression, STATE 1477), (sym_type_cast_expression, STATE 1477),
     (sym_type_test_expression, STATE 1477), (sym_relational_expression, STATE 1477),
     (sym_bitwise_or_expression, STATE 1477), (sym_bitwise_xor_expression, STATE 1477),
     (sym_bitwise_and_expression, STATE 1477), (sym_shift_expression, STATE 1477),
     (sym_additive_expression, STATE 1477), (sym_multiplicative_expression, STATE 1477),
     (sym__unary_expression, STATE 1121), (sym_unary_expression, STATE 1303),
     (sym__postfix_expression, STATE 1303), (sym_postfix_expression, STATE 1301),
     (sym_spread_element, STATE 2660), (sym_prefix_operator, STATE 431),
     (sym_negation_operator, STATE 1450), (sym__exclamation_operator, STATE 1451),
     (sym_tilde_operator, STATE 1385), (sym_await_expression, STATE 1302),
     (sym_new_expression, STATE 962), (sym_const_object_expression, STATE 962),
     (sym__primary, STATE 668), (sym_parenthesized_expression, STATE 962),
     (sym_constructor_invocation, STATE 643), (sym_constructor_tearoff, STATE 962),
     (sym_type_arguments, STATE 3200), (sym_switch_expression, STATE 962),
     (sym__parenthesized_pattern, STATE 3182), (sym_list_pattern, STATE 3182),
     (sym_map_pattern, STATE 3182), (sym_record_pattern, STATE 3182),
     (sym_object_pattern, STATE 3182), (sym__outer_pattern, STATE 3410),
     (sym_pattern_assignment, STATE 908), (sym_if_element, STATE 2660),
     (sym_for_element, STATE 2660), (sym_type_parameters, STATE 2932),
     (sym__type_name, STATE 2661), (sym__formal_parameter_part, STATE 2339),
     (sym_formal_parameter_list, STATE 2020), (sym__strict_formal_parameter_list, STATE 2016),
     (sym__new_builtin, STATE 2079), (sym_this, STATE 962), (sym_super, STATE 1337),
     (sym_comment, STATE 100), (sym_documentation_comment, STATE 100),
     (aux_sym_string_literal_repeat1, STATE 474), (sym_identifier, ACTIONS 494),
     (anon_sym_POUND, ACTIONS 73), (sym_decimal_integer_literal, ACTIONS 75),
     (sym_hex_integer_literal, ACTIONS 77), (sym_decimal_floating_point_literal, ACTIONS 75),
     (anon_sym_true, ACTIONS 79), (anon_sym_false, ACTIONS 81), (anon_sym_DQUOTE, ACTIONS 83),
     (anon_sym_SQUOTE, ACTIONS 85), (anon_sym_DQUOTE_DQUOTE_DQUOTE, ACTIONS 87),
     (anon_sym_SQUOTE_SQUOTE_SQUOTE, ACTIONS 89), (anon_sym_r_DQUOTE, ACTIONS 91),
     (anon_sym_r_SQUOTE, ACTIONS 93), (anon_sym_r_DQUOTE_DQUOTE_DQUOTE, ACTIONS 95),
     (anon_sym_r_SQUOTE_SQUOTE_SQUOTE, ACTIONS 97), (anon_sym_LBRACE, ACTIONS 442),
     (anon_sym_RBRACE, ACTIONS 546), (anon_sym_LBRACK, ACTIONS 103),
     (anon_sym_null, ACTIONS 105), (anon_sym_LPAREN, ACTIONS 498), (anon_sym_throw, ACTIONS 109),
     (anon_sym_LT, ACTIONS 111), (sym_increment_operator, ACTIONS 113),
     (anon_sym_DOT_DOT_DOT, ACTIONS 167), (sym_minus_operator, ACTIONS 117),
     (anon_sym_BANG, ACTIONS 119), (anon_sym_TILDE, ACTIONS 121), (anon_sym_await, ACTIONS 410),
     (anon_sym_switch, ACTIONS 412), (anon_sym_if, ACTIONS 414), (anon_sym_for, ACTIONS 416),
     (sym_rethrow_builtin, ACTIONS 151), (anon_sym_new, ACTIONS 155),
     (sym_const_builtin, ACTIONS 478), (anon_sym_this, ACTIONS 159),
     (anon_sym_super, ACTIONS 161), (anon_sym_SLASH_SLASH, ACTIONS 3),
     (anon_sym_SLASH_STAR, ACTIONS 5), (anon_sym_SLASH_SLASH_SLASH, ACTIONS 7),
     (sym__block_comment, ACTIONS 9), (sym__documentation_block_comment, ACTIONS 11)]"

lemma row_ok_100: "table_row_ok 100 ts_parse_table_100"
  by (simp add: row_simps ts_parse_table_100_def)

definition ts_parse_table_101 :: table_row where
  "ts_parse_table_101 = [
     (sym__bool_literal, STATE 989), (sym__numeric_literal, STATE 989),
     (sym__literal, STATE 962), (sym_symbol_literal, STATE 989), (sym_true, STATE 900),
     (sym_false, STATE 900), (sym_string_literal, STATE 989),
     (sym__string_literal_double_quotes, STATE 627),
     (sym__string_literal_single_quotes, STATE 627),
     (sym__string_literal_double_quotes_multiple, STATE 627),
     (sym__string_literal_single_quotes_multiple, STATE 627),
     (sym__raw_string_literal_double_quotes, STATE 627),
     (sym__raw_string_literal_single_quotes, STATE 627),
     (sym__raw_string_literal_double_quotes_multiple, STATE 627),
     (sym__raw_string_literal_single_quotes_multiple, STATE 627), (sym_list_literal, STATE 989),
     (sym_set_or_map_literal, STATE 989), (sym_pair, STATE 2660), (sym__element, STATE 2838),
     (sym_null_literal, STATE 989), (sym_record_literal, STATE 989),
     (sym__record_literal_no_const, STATE 924), (sym__expression, STATE 2562),
     (sym__real_expression, STATE 660), (sym_throw_expression, STATE 908),
     (sym_rethrow_expression, STATE 908), (sym_assignment_expression, STATE 908),
     (sym_assignable_expression, STATE 1940), (sym_function_expression, STATE 962),
     (sym_if_null_expression, STATE 1477), (sym_conditional_expression, STATE 1477),
     (sym_logical_or_expression, STATE 1477), (sym_logical_and_expression, STATE 1477),
     (sym_equality_expression, STATE 1477), (sym_type_cast_expression, STATE 1477),
     (sym_type_test_expression, STATE 1477), (sym_relational_expression, STATE 1477),
     (sym_bitwise_or_expression, STATE 1477), (sym_bitwise_xor_expression, STATE 1477),
     (sym_bitwise_and_expression, STATE 1477), (sym_shift_expression, STATE 1477),
     (sym_additive_expression, STATE 1477), (sym_multiplicative_expression, STATE 1477),
     (sym__unary_expression, STATE 1121), (sym_unary_expression, STATE 1303),
     (sym__postfix_expression, STATE 1303), (sym_postfix_expression, STATE 1301),
     (sym_spread_element, STATE 2660), (sym_prefix_operator, STATE 431),
     (sym_negation_operator, STATE 1450), (sym__exclamation_operator, STATE 1451),
     (sym_tilde_operator, STATE 1385), (sym_await_expression, STATE 1302),
     (sym_new_expression, STATE 962), (sym_const_object_expression, STATE 962),
     (sym__primary, STATE 668), (sym_parenthesized_expression, STATE 962),
     (sym_constructor_invocation, STATE 643), (sym_constructor_tearoff, STATE 962),
     (sym_type_arguments, STATE 3200), (sym_switch_expression, STATE 962),
     (sym__parenthesized_pattern, STATE 3182), (sym_list_pattern, STATE 3182),
     (sym_map_pattern, STATE 3182), (sym_record_pattern, STATE 3182),
     (sym_object_pattern, STATE 3182), (sym__outer_pattern, STATE 3410),
     (sym_pattern_assignment, STATE 908), (sym_if_element, STATE 2660),
     (sym_for_element, STATE 2660), (sym_type_parameters, STATE 2932),
     (sym__type_name, STATE 2661), (sym__formal_parameter_part, STATE 2339),
     (sym_formal_parameter_list, STATE 2020), (sym__strict_formal_parameter_list, STATE 2016),
     (sym__new_builtin, STATE 2079), (sym_this, STATE 962), (sym_super, STATE 1337),
     (sym_comment, STATE 101), (sym_documentation_comment, STATE 101),
     (aux_sym_string_literal_repeat1, STATE 474), (sym_identifier, ACTIONS 494),
     (anon_sym_POUND, ACTIONS 73), (sym_decimal_integer_literal, ACTIONS 75),
     (sym_hex_integer_literal, ACTIONS 77), (sym_decimal_floating_point_literal, ACTIONS 75),
     (anon_sym_true, ACTIONS 79), (anon_sym_false, ACTIONS 81), (anon_sym_DQUOTE, ACTIONS 83),
     (anon_sym_SQUOTE, ACTIONS 85), (anon_sym_DQUOTE_DQUOTE_DQUOTE, ACTIONS 87),
     (anon_sym_SQUOTE_SQUOTE_SQUOTE, ACTIONS 89), (anon_sym_r_DQUOTE, ACTIONS 91),
     (anon_sym_r_SQUOTE, ACTIONS 93), (anon_sym_r_DQUOTE_DQUOTE_DQUOTE, ACTIONS 95),
     (anon_sym_r_SQUOTE_SQUOTE_SQUOTE, ACTIONS 97), (anon_sym_LBRACE, ACTIONS 442),
     (anon_sym_LBRACK, ACTIONS 103), (anon_sym_RBRACK, ACTIONS 548),
     (anon_sym_null, ACTIONS 105), (anon_sym_LPAREN, ACTIONS 498), (anon_sym_throw, ACTIONS 109),
     (anon_sym_LT, ACTIONS 111), (sym_increment_operator, ACTIONS 113),
     (anon_sym_DOT_DOT_DOT, ACTIONS 167), (sym_minus_operator, ACTIONS 117),
     (anon_sym_BANG, ACTIONS 119), (anon_sym_TILDE, ACTIONS 121), (anon_sym_await, ACTIONS 410),
     (anon_sym_switch, ACTIONS 412), (anon_sym_if, ACTIONS 414), (anon_sym_for, ACTIONS 416),
     (sym_rethrow_builtin, ACTIONS 151), (anon_sym_new, ACTIONS 155),
     (sym_const_builtin, ACTIONS 478), (anon_sym_this, ACTIONS 159),
     (anon_sym_super, ACTIONS 161), (anon_sym_SLASH_SLASH, ACTIONS 3),
     (anon_sym_SLASH_STAR, ACTIONS 5), (anon_sym_SLASH_SLASH_SLASH, ACTIONS 7),
     (sym__block_comment, ACTIONS 9), (sym__documentation_block_comment, ACTIONS 11)]"

lemma row_ok_101: "table_row_ok 101 ts_parse_table_101"
  by (simp add: row_simps ts_parse_table_101_def)

definition ts_parse_table_102 :: table_row where
  "ts_parse_table_102 = [
     (sym__bool_literal, STATE 989), (sym__numeric_literal, STATE 989),
     (sym__literal, STATE 962), (sym_symbol_literal, STATE 989), (sym_true, STATE 900),
     (sym_false, STATE 900), (sym_string_literal, STATE 989),
     (sym__string_literal_double_quotes, STATE 627),
     (sym__string_literal_single_quotes, STATE 627),
     (sym__string_literal_double_quotes_multiple, STATE 627),
     (sym__string_literal_single_quotes_multiple, STATE 627),
     (sym__raw_string_literal_double_quotes, STATE 627),
     (sym__raw_string_literal_single_quotes, STATE 627),
     (sym__raw_string_literal_double_quotes_multiple, STATE 627),
     (sym__raw_string_literal_single_quotes_multiple, STATE 627), (sym_list_literal, STATE 989),
     (sym_set_or_map_literal, STATE 989), (sym_pair, STATE 2660), (sym__element, STATE 2838),
     (sym_null_literal, STATE 989), (sym_record_literal, STATE 989),
     (sym__record_literal_no_const, STATE 924), (sym__expression, STATE 2562),
     (sym__real_expression, STATE 660), (sym_throw_expression, STATE 908),
     (sym_rethrow_expression, STATE 908), (sym_assignment_expression, STATE 908),
     (sym_assignable_expression, STATE 1940), (sym_function_expression, STATE 962),
     (sym_if_null_expression, STATE 1477), (sym_conditional_expression, STATE 1477),
     (sym_logical_or_expression, STATE 1477), (sym_logical_and_expression, STATE 1477),
     (sym_equality_expression, STATE 1477), (sym_type_cast_expression, STATE 1477),
     (sym_type_test_expression, STATE 1477), (sym_relational_expression, STATE 1477),
     (sym_bitwise_or_expression, STATE 1477), (sym_bitwise_xor_expression, STATE 1477),
     (sym_bitwise_and_expression, STATE 1477), (sym_shift_expression, STATE 1477),
     (sym_additive_expression, STATE 1477), (sym_multiplicative_expression, STATE 1477),
     (sym__unary_expression, STATE 1121), (sym_unary_expression, STATE 1303),
     (sym__postfix_expression, STATE 1303), (sym_postfix_expression, STATE 1301),
     (sym_spread_element, STATE 2660), (sym_prefix_operator, STATE 431),
     (sym_negation_operator, STATE 1450), (sym__exclamation_operator, STATE 1451),
     (sym_tilde_operator, STATE 1385), (sym_await_expression, STATE 1302),
     (sym_new_expression, STATE 962), (sym_const_object_expression, STATE 962),
     (sym__primary, STATE 668), (sym_parenthesized_expression, STATE 962),
     (sym_constructor_invocation, STATE 643), (sym_constructor_tearoff, STATE 962),
     (sym_type_arguments, STATE 3200), (sym_switch_expression, STATE 962),
     (sym__parenthesized_pattern, STATE 3182), (sym_list_pattern, STATE 3182),
     (sym_map_pattern, STATE 3182), (sym_record_pattern, STATE 3182),
     (sym_object_pattern, STATE 3182), (sym__outer_pattern, STATE 3410),
     (sym_pattern_assignment, STATE 908), (sym_if_element, STATE 2660),
     (sym_for_element, STATE 2660), (sym_type_parameters, STATE 2932),
     (sym__type_name, STATE 2661), (sym__formal_parameter_part, STATE 2339),
     (sym_formal_parameter_list, STATE 2020), (sym__strict_formal_parameter_list, STATE 2016),
     (sym__new_builtin, STATE 2079), (sym_this, STATE 962), (sym_super, STATE 1337),
     (sym_comment, STATE 102), (sym_documentation_comment, STATE 102),
     (aux_sym_string_literal_repeat1, STATE 474), (sym_identifier, ACTIONS 494),
     (anon_sym_POUND, ACTIONS 73), (sym_decimal_integer_literal, ACTIONS 75),
     (sym_hex_integer_literal, ACTIONS 77), (sym_decimal_floating_point_literal, ACTIONS 75),
     (anon_sym_true, ACTIONS 79), (anon_sym_false, ACTIONS 81), (anon_sym_DQUOTE, ACTIONS 83),
     (anon_sym_SQUOTE, ACTIONS 85), (anon_sym_DQUOTE_DQUOTE_DQUOTE, ACTIONS 87),
     (anon_sym_SQUOTE_SQUOTE_SQUOTE, ACTIONS 89), (anon_sym_r_DQUOTE, ACTIONS 91),
     (anon_sym_r_SQUOTE, ACTIONS 93), (anon_sym_r_DQUOTE_DQUOTE_DQUOTE, ACTIONS 95),
     (anon_sym_r_SQUOTE_SQUOTE_SQUOTE, ACTIONS 97), (anon_sym_LBRACE, ACTIONS 442),
     (anon_sym_RBRACE, ACTIONS 550), (anon_sym_LBRACK, ACTIONS 103),
     (anon_sym_null, ACTIONS 105), (anon_sym_LPAREN, ACTIONS 498), (anon_sym_throw, ACTIONS 109),
     (anon_sym_LT, ACTIONS 111), (sym_increment_operator, ACTIONS 113),
     (anon_sym_DOT_DOT_DOT, ACTIONS 167), (sym_minus_operator, ACTIONS 117),
     (anon_sym_BANG, ACTIONS 119), (anon_sym_TILDE, ACTIONS 121), (anon_sym_await, ACTIONS 410),
     (anon_sym_switch, ACTIONS 412), (anon_sym_if, ACTIONS 414), (anon_sym_for, ACTIONS 416),
     (sym_rethrow_builtin, ACTIONS 151), (anon_sym_new, ACTIONS 155),
     (sym_const_builtin, ACTIONS 478), (anon_sym_this, ACTIONS 159),
     (anon_sym_super, ACTIONS 161), (anon_sym_SLASH_SLASH, ACTIONS 3),
     (anon_sym_SLASH_STAR, ACTIONS 5), (anon_sym_SLASH_SLASH_SLASH, ACTIONS 7),
     (sym__block_comment, ACTIONS 9), (sym__documentation_block_comment, ACTIONS 11)]"

lemma row_ok_102: "table_row_ok 102 ts_parse_table_102"
  by (simp add: row_simps ts_parse_table_102_def)

definition ts_parse_table_103 :: table_row where
  "ts_parse_table_103 = [
     (sym__bool_literal, STATE 989), (sym__numeric_literal, STATE 989),
     (sym__literal, STATE 962), (sym_symbol_literal, STATE 989), (sym_true, STATE 900),
     (sym_false, STATE 900), (sym_string_literal, STATE 989),
     (sym__string_literal_double_quotes, STATE 627),
     (sym__string_literal_single_quotes, STATE 627),
     (sym__string_literal_double_quotes_multiple, STATE 627),
     (sym__string_literal_single_quotes_multiple, STATE 627),
     (sym__raw_string_literal_double_quotes, STATE 627),
     (sym__raw_string_literal_single_quotes, STATE 627),
     (sym__raw_string_literal_double_quotes_multiple, STATE 627),
     (sym__raw_string_literal_single_quotes_multiple, STATE 627), (sym_list_literal, STATE 989),
     (sym_set_or_map_literal, STATE 989), (sym_pair, STATE 2660), (sym__element, STATE 2838),
     (sym_null_literal, STATE 989), (sym_record_literal, STATE 989),
     (sym__record_literal_no_const, STATE 924), (sym__expression, STATE 2562),
     (sym__real_expression, STATE 660), (sym_throw_expression, STATE 908),
     (sym_rethrow_expression, STATE 908), (sym_assignment_expression, STATE 908),
     (sym_assignable_expression, STATE 1940), (sym_function_expression, STATE 962),
     (sym_if_null_expression, STATE 1477), (sym_conditional_expression, STATE 1477),
     (sym_logical_or_expression, STATE 1477), (sym_logical_and_expression, STATE 1477),
     (sym_equality_expression, STATE 1477), (sym_type_cast_expression, STATE 1477),
     (sym_type_test_expression, STATE 1477), (sym_relational_expression, STATE 1477),
     (sym_bitwise_or_expression, STATE 1477), (sym_bitwise_xor_expression, STATE 1477),
     (sym_bitwise_and_expression, STATE 1477), (sym_shift_expression, STATE 1477),
     (sym_additive_expression, STATE 1477), (sym_multiplicative_expression, STATE 1477),
     (sym__unary_expression, STATE 1121), (sym_unary_expression, STATE 1303),
     (sym__postfix_expression, STATE 1303), (sym_postfix_expression, STATE 1301),
     (sym_spread_element, STATE 2660), (sym_prefix_operator, STATE 431),
     (sym_negation_operator, STATE 1450), (sym__exclamation_operator, STATE 1451),
     (sym_tilde_operator, STATE 1385), (sym_await_expression, STATE 1302),
     (sym_new_expression, STATE 962), (sym_const_object_expression, STATE 962),
     (sym__primary, STATE 668), (sym_parenthesized_expression, STATE 962),
     (sym_constructor_invocation, STATE 643), (sym_constructor_tearoff, STATE 962),
     (sym_type_arguments, STATE 3200), (sym_switch_expression, STATE 962),
     (sym__parenthesized_pattern, STATE 3182), (sym_list_pattern, STATE 3182),
     (sym_map_pattern, STATE 3182), (sym_record_pattern, STATE 3182),
     (sym_object_pattern, STATE 3182), (sym__outer_pattern, STATE 3410),
     (sym_pattern_assignment, STATE 908), (sym_if_element, STATE 2660),
     (sym_for_element, STATE 2660), (sym_type_parameters, STATE 2932),
     (sym__type_name, STATE 2661), (sym__formal_parameter_part, STATE 2339),
     (sym_formal_parameter_list, STATE 2020), (sym__strict_formal_parameter_list, STATE 2016),
     (sym__new_builtin, STATE 2079), (sym_this, STATE 962), (sym_super, STATE 1337),
     (sym_comment, STATE 103), (sym_documentation_comment, STATE 103),
     (aux_sym_string_literal_repeat1, STATE 474), (sym_identifier, ACTIONS 494),
     (anon_sym_POUND, ACTIONS 73), (sym_decimal_integer_literal, ACTIONS 75),
     (sym_hex_integer_literal, ACTIONS 77), (sym_decimal_floating_point_literal, ACTIONS 75),
     (anon_sym_true, ACTIONS 79), (anon_sym_false, ACTIONS 81), (anon_sym_DQUOTE, ACTIONS 83),
     (anon_sym_SQUOTE, ACTIONS 85), (anon_sym_DQUOTE_DQUOTE_DQUOTE, ACTIONS 87),
     (anon_sym_SQUOTE_SQUOTE_SQUOTE, ACTIONS 89), (anon_sym_r_DQUOTE, ACTIONS 91),
     (anon_sym_r_SQUOTE, ACTIONS 93), (anon_sym_r_DQUOTE_DQUOTE_DQUOTE, ACTIONS 95),
     (anon_sym_r_SQUOTE_SQUOTE_SQUOTE, ACTIONS 97), (anon_sym_LBRACE, ACTIONS 442),
     (anon_sym_RBRACE, ACTIONS 552), (anon_sym_LBRACK, ACTIONS 103),
     (anon_sym_null, ACTIONS 105), (anon_sym_LPAREN, ACTIONS 498), (anon_sym_throw, ACTIONS 109),
     (anon_sym_LT, ACTIONS 111), (sym_increment_operator, ACTIONS 113),
     (anon_sym_DOT_DOT_DOT, ACTIONS 167), (sym_minus_operator, ACTIONS 117),
     (anon_sym_BANG, ACTIONS 119), (anon_sym_TILDE, ACTIONS 121), (anon_sym_await, ACTIONS 410),
     (anon_sym_switch, ACTIONS 412), (anon_sym_if, ACTIONS 414), (anon_sym_for, ACTIONS 416),
     (sym_rethrow_builtin, ACTIONS 151), (anon_sym_new, ACTIONS 155),
     (sym_const_builtin, ACTIONS 478), (anon_sym_this, ACTIONS 159),
     (anon_sym_super, ACTIONS 161), (anon_sym_SLASH_SLASH, ACTIONS 3),
     (anon_sym_SLASH_STAR, ACTIONS 5), (anon_sym_SLASH_SLASH_SLASH, ACTIONS 7),
     (sym__block_comment, ACTIONS 9), (sym__documentation_block_comment, ACTIONS 11)]"

lemma row_ok_103: "table_row_ok 103 ts_parse_table_103"
  by (simp add: row_simps ts_parse_table_103_def)

definition ts_parse_table_104 :: table_row where
  "ts_parse_table_104 = [
     (sym__bool_literal, STATE 989), (sym__numeric_literal, STATE 989),
     (sym__literal, STATE 962), (sym_symbol_literal, STATE 989), (sym_true, STATE 900),
     (sym_false, STATE 900), (sym_string_literal, STATE 989),
     (sym__string_literal_double_quotes, STATE 627),
     (sym__string_literal_single_quotes, STATE 627),
     (sym__string_literal_double_quotes_multiple, STATE 627),
     (sym__string_literal_single_quotes_multiple, STATE 627),
     (sym__raw_string_literal_double_quotes, STATE 627),
     (sym__raw_string_literal_single_quotes, STATE 627),
     (sym__raw_string_literal_double_quotes_multiple, STATE 627),
     (sym__raw_string_literal_single_quotes_multiple, STATE 627), (sym_list_literal, STATE 989),
     (sym_set_or_map_literal, STATE 989), (sym_pair, STATE 2660), (sym__element, STATE 2896),
     (sym_null_literal, STATE 989), (sym_record_literal, STATE 989),
     (sym__record_literal_no_const, STATE 924), (sym__expression, STATE 2562),
     (sym__real_expression, STATE 660), (sym_throw_expression, STATE 908),
     (sym_rethrow_expression, STATE 908), (sym_assignment_expression, STATE 908),
     (sym_assignable_expression, STATE 1940), (sym_function_expression, STATE 962),
     (sym_if_null_expression, STATE 1477), (sym_conditional_expression, STATE 1477),
     (sym_logical_or_expression, STATE 1477), (sym_logical_and_expression, STATE 1477),
     (sym_equality_expression, STATE 1477), (sym_type_cast_expression, STATE 1477),
     (sym_type_test_expression, STATE 1477), (sym_relational_expression, STATE 1477),
     (sym_bitwise_or_expression, STATE 1477), (sym_bitwise_xor_expression, STATE 1477),
     (sym_bitwise_and_expression, STATE 1477), (sym_shift_expression, STATE 1477),
     (sym_additive_expression, STATE 1477), (sym_multiplicative_expression, STATE 1477),
     (sym__unary_expression, STATE 1121), (sym_unary_expression, STATE 1303),
     (sym__postfix_expression, STATE 1303), (sym_postfix_expression, STATE 1301),
     (sym_spread_element, STATE 2660), (sym_prefix_operator, STATE 431),
     (sym_negation_operator, STATE 1450), (sym__exclamation_operator, STATE 1451),
     (sym_tilde_operator, STATE 1385), (sym_await_expression, STATE 1302),
     (sym_new_expression, STATE 962), (sym_const_object_expression, STATE 962),
     (sym__primary, STATE 668), (sym_parenthesized_expression, STATE 962),
     (sym_constructor_invocation, STATE 643), (sym_constructor_tearoff, STATE 962),
     (sym_type_arguments, STATE 3200), (sym_switch_expression, STATE 962),
     (sym__parenthesized_pattern, STATE 3182), (sym_list_pattern, STATE 3182),
     (sym_map_pattern, STATE 3182), (sym_record_pattern, STATE 3182),
     (sym_object_pattern, STATE 3182), (sym__outer_pattern, STATE 3410),
     (sym_pattern_assignment, STATE 908), (sym_if_element, STATE 2660),
     (sym_for_element, STATE 2660), (sym_type_parameters, STATE 2932),
     (sym__type_name, STATE 2661), (sym__formal_parameter_part, STATE 2339),
     (sym_formal_parameter_list, STATE 2020), (sym__strict_formal_parameter_list, STATE 2016),
     (sym__new_builtin, STATE 2079), (sym_this, STATE 962), (sym_super, STATE 1337),
     (sym_comment, STATE 104), (sym_documentation_comment, STATE 104),
     (aux_sym_string_literal_repeat1, STATE 474), (sym_identifier, ACTIONS 494),
     (anon_sym_POUND, ACTIONS 73), (sym_decimal_integer_literal, ACTIONS 75),
     (sym_hex_integer_literal, ACTIONS 77), (sym_decimal_floating_point_literal, ACTIONS 75),
     (anon_sym_true, ACTIONS 79), (anon_sym_false, ACTIONS 81), (anon_sym_DQUOTE, ACTIONS 83),
     (anon_sym_SQUOTE, ACTIONS 85), (anon_sym_DQUOTE_DQUOTE_DQUOTE, ACTIONS 87),
     (anon_sym_SQUOTE_SQUOTE_SQUOTE, ACTIONS 89), (anon_sym_r_DQUOTE, ACTIONS 91),
     (anon_sym_r_SQUOTE, ACTIONS 93), (anon_sym_r_DQUOTE_DQUOTE_DQUOTE, ACTIONS 95),
     (anon_sym_r_SQUOTE_SQUOTE_SQUOTE, ACTIONS 97), (anon_sym_LBRACE, ACTIONS 442),
     (anon_sym_LBRACK, ACTIONS 103), (anon_sym_RBRACK, ACTIONS 506),
     (anon_sym_null, ACTIONS 105), (anon_sym_LPAREN, ACTIONS 498), (anon_sym_throw, ACTIONS 109),
     (anon_sym_LT, ACTIONS 111), (sym_increment_operator, ACTIONS 113),
     (anon_sym_DOT_DOT_DOT, ACTIONS 167), (sym_minus_operator, ACTIONS 117),
     (anon_sym_BANG, ACTIONS 119), (anon_sym_TILDE, ACTIONS 121), (anon_sym_await, ACTIONS 410),
     (anon_sym_switch, ACTIONS 412), (anon_sym_if, ACTIONS 414), (anon_sym_for, ACTIONS 416),
     (sym_rethrow_builtin, ACTIONS 151), (anon_sym_new, ACTIONS 155),
     (sym_const_builtin, ACTIONS 478), (anon_sym_this, ACTIONS 159),
     (anon_sym_super, ACTIONS 161), (anon_sym_SLASH_SLASH, ACTIONS 3),
     (anon_sym_SLASH_STAR, ACTIONS 5), (anon_sym_SLASH_SLASH_SLASH, ACTIONS 7),
     (sym__block_comment, ACTIONS 9), (sym__documentation_block_comment, ACTIONS 11)]"

lemma row_ok_104: "table_row_ok 104 ts_parse_table_104"
  by (simp add: row_simps ts_parse_table_104_def)

definition ts_parse_table_105 :: table_row where
  "ts_parse_table_105 = [
     (sym__bool_literal, STATE 989), (sym__numeric_literal, STATE 989),
     (sym__literal, STATE 962), (sym_symbol_literal, STATE 989), (sym_true, STATE 900),
     (sym_false, STATE 900), (sym_string_literal, STATE 989),
     (sym__string_literal_double_quotes, STATE 627),
     (sym__string_literal_single_quotes, STATE 627),
     (sym__string_literal_double_quotes_multiple, STATE 627),
     (sym__string_literal_single_quotes_multiple, STATE 627),
     (sym__raw_string_literal_double_quotes, STATE 627),
     (sym__raw_string_literal_single_quotes, STATE 627),
     (sym__raw_string_literal_double_quotes_multiple, STATE 627),
     (sym__raw_string_literal_single_quotes_multiple, STATE 627), (sym_list_literal, STATE 989),
     (sym_set_or_map_literal, STATE 989), (sym_pair, STATE 2660), (sym__element, STATE 2897),
     (sym_null_literal, STATE 989), (sym_record_literal, STATE 989),
     (sym__record_literal_no_const, STATE 924), (sym__expression, STATE 2562),
     (sym__real_expression, STATE 660), (sym_throw_expression, STATE 908),
     (sym_rethrow_expression, STATE 908), (sym_assignment_expression, STATE 908),
     (sym_assignable_expression, STATE 1940), (sym_function_expression, STATE 962),
     (sym_if_null_expression, STATE 1477), (sym_conditional_expression, STATE 1477),
     (sym_logical_or_expression, STATE 1477), (sym_logical_and_expression, STATE 1477),
     (sym_equality_expression, STATE 1477), (sym_type_cast_expression, STATE 1477),
     (sym_type_test_expression, STATE 1477), (sym_relational_expression, STATE 1477),
     (sym_bitwise_or_expression, STATE 1477), (sym_bitwise_xor_expression, STATE 1477),
     (sym_bitwise_and_expression, STATE 1477), (sym_shift_expression, STATE 1477),
     (sym_additive_expression, STATE 1477), (sym_multiplicative_expression, STATE 1477),
     (sym__unary_expression, STATE 1121), (sym_unary_expression, STATE 1303),
     (sym__postfix_expression, STATE 1303), (sym_postfix_expression, STATE 1301),
     (sym_spread_element, STATE 2660), (sym_prefix_operator, STATE 431),
     (sym_negation_operator, STATE 1450), (sym__exclamation_operator, STATE 1451),
     (sym_tilde_operator, STATE 1385), (sym_await_expression, STATE 1302),
     (sym_new_expression, STATE 962), (sym_const_object_expression, STATE 962),
     (sym__primary, STATE 668), (sym_parenthesized_expression, STATE 962),
     (sym_constructor_invocation, STATE 643), (sym_constructor_tearoff, STATE 962),
     (sym_type_arguments, STATE 3200), (sym_switch_expression, STATE 962),
     (sym__parenthesized_pattern, STATE 3182), (sym_list_pattern, STATE 3182),
     (sym_map_pattern, STATE 3182), (sym_record_pattern, STATE 3182),
     (sym_object_pattern, STATE 3182), (sym__outer_pattern, STATE 3410),
     (sym_pattern_assignment, STATE 908), (sym_if_element, STATE 2660),
     (sym_for_element, STATE 2660), (sym_type_parameters, STATE 2932),
     (sym__type_name, STATE 2661), (sym__formal_parameter_part, STATE 2339),
     (sym_formal_parameter_list, STATE 2020), (sym__strict_formal_parameter_list, STATE 2016),
     (sym__new_builtin, STATE 2079), (sym_this, STATE 962), (sym_super, STATE 1337),
     (sym_comment, STATE 105), (sym_documentation_comment, STATE 105),
     (aux_sym_string_literal_repeat1, STATE 474), (sym_identifier, ACTIONS 494),
     (anon_sym_POUND, ACTIONS 73), (sym_decimal_integer_literal, ACTIONS 75),
     (sym_hex_integer_literal, ACTIONS 77), (sym_decimal_floating_point_literal, ACTIONS 75),
     (anon_sym_true, ACTIONS 79), (anon_sym_false, ACTIONS 81), (anon_sym_DQUOTE, ACTIONS 83),
     (anon_sym_SQUOTE, ACTIONS 85), (anon_sym_DQUOTE_DQUOTE_DQUOTE, ACTIONS 87),
     (anon_sym_SQUOTE_SQUOTE_SQUOTE, ACTIONS 89), (anon_sym_r_DQUOTE, ACTIONS 91),
     (anon_sym_r_SQUOTE, ACTIONS 93), (anon_sym_r_DQUOTE_DQUOTE_DQUOTE, ACTIONS 95),
     (anon_sym_r_SQUOTE_SQUOTE_SQUOTE, ACTIONS 97), (anon_sym_LBRACE, ACTIONS 442),
     (anon_sym_RBRACE, ACTIONS 554), (anon_sym_LBRACK, ACTIONS 103),
     (anon_sym_null, ACTIONS 105), (anon_sym_LPAREN, ACTIONS 498), (anon_sym_throw, ACTIONS 109),
     (anon_sym_LT, ACTIONS 111), (sym_increment_operator, ACTIONS 113),
     (anon_sym_DOT_DOT_DOT, ACTIONS 167), (sym_minus_operator, ACTIONS 117),
     (anon_sym_BANG, ACTIONS 119), (anon_sym_TILDE, ACTIONS 121), (anon_sym_await, ACTIONS 410),
     (anon_sym_switch, ACTIONS 412), (anon_sym_if, ACTIONS 414), (anon_sym_for, ACTIONS 416),
     (sym_rethrow_builtin, ACTIONS 151), (anon_sym_new, ACTIONS 155),
     (sym_const_builtin, ACTIONS 478), (anon_sym_this, ACTIONS 159),
     (anon_sym_super, ACTIONS 161), (anon_sym_SLASH_SLASH, ACTIONS 3),
     (anon_sym_SLASH_STAR, ACTIONS 5), (anon_sym_SLASH_SLASH_SLASH, ACTIONS 7),
     (sym__block_comment, ACTIONS 9), (sym__documentation_block_comment, ACTIONS 11)]"

lemma row_ok_105: "table_row_ok 105 ts_parse_table_105"
  by (simp add: row_simps ts_parse_table_105_def)

definition ts_parse_table_106 :: table_row where
  "ts_parse_table_106 = [
     (sym__bool_literal, STATE 989), (sym__numeric_literal, STATE 989),
     (sym__literal, STATE 962), (sym_symbol_literal, STATE 989), (sym_true, STATE 900),
     (sym_false, STATE 900), (sym_string_literal, STATE 989),
     (sym__string_literal_double_quotes, STATE 627),
     (sym__string_literal_single_quotes, STATE 627),
     (sym__string_literal_double_quotes_multiple, STATE 627),
     (sym__string_literal_single_quotes_multiple, STATE 627),
     (sym__raw_string_literal_double_quotes, STATE 627),
     (sym__raw_string_literal_single_quotes, STATE 627),
     (sym__raw_string_literal_double_quotes_multiple, STATE 627),
     (sym__raw_string_literal_single_quotes_multiple, STATE 627), (sym_list_literal, STATE 989),
     (sym_set_or_map_literal, STATE 989), (sym_pair, STATE 2660), (sym__element, STATE 2838),
     (sym_null_literal, STATE 989), (sym_record_literal, STATE 989),
     (sym__record_literal_no_const, STATE 924), (sym__expression, STATE 2562),
     (sym__real_expression, STATE 660), (sym_throw_expression, STATE 908),
     (sym_rethrow_expression, STATE 908), (sym_assignment_expression, STATE 908),
     (sym_assignable_expression, STATE 1940), (sym_function_expression, STATE 962),
     (sym_if_null_expression, STATE 1477), (sym_conditional_expression, STATE 1477),
     (sym_logical_or_expression, STATE 1477), (sym_logical_and_expression, STATE 1477),
     (sym_equality_expression, STATE 1477), (sym_type_cast_expression, STATE 1477),
     (sym_type_test_expression, STATE 1477), (sym_relational_expression, STATE 1477),
     (sym_bitwise_or_expression, STATE 1477), (sym_bitwise_xor_expression, STATE 1477),
     (sym_bitwise_and_expression, STATE 1477), (sym_shift_expression, STATE 1477),
     (sym_additive_expression, STATE 1477), (sym_multiplicative_expression, STATE 1477),
     (sym__unary_expression, STATE 1121), (sym_unary_expression, STATE 1303),
     (sym__postfix_expression, STATE 1303), (sym_postfix_expression, STATE 1301),
     (sym_spread_element, STATE 2660), (sym_prefix_operator, STATE 431),
     (sym_negation_operator, STATE 1450), (sym__exclamation_operator, STATE 1451),
     (sym_tilde_operator, STATE 1385), (sym_await_expression, STATE 1302),
     (sym_new_expression, STATE 962), (sym_const_object_expression, STATE 962),
     (sym__primary, STATE 668), (sym_parenthesized_expression, STATE 962),
     (sym_constructor_invocation, STATE 643), (sym_constructor_tearoff, STATE 962),
     (sym_type_arguments, STATE 3200), (sym_switch_expression, STATE 962),
     (sym__parenthesized_pattern, STATE 3182), (sym_list_pattern, STATE 3182),
     (sym_map_pattern, STATE 3182), (sym_record_pattern, STATE 3182),
     (sym_object_pattern, STATE 3182), (sym__outer_pattern, STATE 3410),
     (sym_pattern_assignment, STATE 908), (sym_if_element, STATE 2660),
     (sym_for_element, STATE 2660), (sym_type_parameters, STATE 2932),
     (sym__type_name, STATE 2661), (sym__formal_parameter_part, STATE 2339),
     (sym_formal_parameter_list, STATE 2020), (sym__strict_formal_parameter_list, STATE 2016),
     (sym__new_builtin, STATE 2079), (sym_this, STATE 962), (sym_super, STATE 1337),
     (sym_comment, STATE 106), (sym_documentation_comment, STATE 106),
     (aux_sym_string_literal_repeat1, STATE 474), (sym_identifier, ACTIONS 494),
     (anon_sym_POUND, ACTIONS 73), (sym_decimal_integer_literal, ACTIONS 75),
     (sym_hex_integer_literal, ACTIONS 77), (sym_decimal_floating_point_literal, ACTIONS 75),
     (anon_sym_true, ACTIONS 79), (anon_sym_false, ACTIONS 81), (anon_sym_DQUOTE, ACTIONS 83),
     (anon_sym_SQUOTE, ACTIONS 85), (anon_sym_DQUOTE_DQUOTE_DQUOTE, ACTIONS 87),
     (anon_sym_SQUOTE_SQUOTE_SQUOTE, ACTIONS 89), (anon_sym_r_DQUOTE, ACTIONS 91),
     (anon_sym_r_SQUOTE, ACTIONS 93), (anon_sym_r_DQUOTE_DQUOTE_DQUOTE, ACTIONS 95),
     (anon_sym_r_SQUOTE_SQUOTE_SQUOTE, ACTIONS 97), (anon_sym_LBRACE, ACTIONS 442),
     (anon_sym_LBRACK, ACTIONS 103), (anon_sym_RBRACK, ACTIONS 556),
     (anon_sym_null, ACTIONS 105), (anon_sym_LPAREN, ACTIONS 498), (anon_sym_throw, ACTIONS 109),
     (anon_sym_LT, ACTIONS 111), (sym_increment_operator, ACTIONS 113),
     (anon_sym_DOT_DOT_DOT, ACTIONS 167), (sym_minus_operator, ACTIONS 117),
     (anon_sym_BANG, ACTIONS 119), (anon_sym_TILDE, ACTIONS 121), (anon_sym_await, ACTIONS 410),
     (anon_sym_switch, ACTIONS 412), (anon_sym_if, ACTIONS 414), (anon_sym_for, ACTIONS 416),
     (sym_rethrow_builtin, ACTIONS 151), (anon_sym_new, ACTIONS 155),
     (sym_const_builtin, ACTIONS 478), (anon_sym_this, ACTIONS 159),
     (anon_sym_super, ACTIONS 161), (anon_sym_SLASH_SLASH, ACTIONS 3),
     (anon_sym_SLASH_STAR, ACTIONS 5), (anon_sym_SLASH_SLASH_SLASH, ACTIONS 7),
     (sym__block_comment, ACTIONS 9), (sym__documentation_block_comment, ACTIONS 11)]"

lemma row_ok_106: "table_row_ok 106 ts_parse_table_106"
  by (simp add: row_simps ts_parse_table_106_def)

definition ts_parse_table_107 :: table_row where
  "ts_parse_table_107 = [
     (sym__bool_literal, STATE 989), (sym__numeric_literal, STATE 989),
     (sym__literal, STATE 962), (sym_symbol_literal, STATE 989), (sym_true, STATE 900),
     (sym_false, STATE 900), (sym_string_literal, STATE 989),
     (sym__string_literal_double_quotes, STATE 627),
     (sym__string_literal_single_quotes, STATE 627),
     (sym__string_literal_double_quotes_multiple, STATE 627),
     (sym__string_literal_single_quotes_multiple, STATE 627),
     (sym__raw_string_literal_double_quotes, STATE 627),
     (sym__raw_string_literal_single_quotes, STATE 627),
     (sym__raw_string_literal_double_quotes_multiple, STATE 627),
     (sym__raw_string_literal_single_quotes_multiple, STATE 627), (sym_list_literal, STATE 989),
     (sym_set_or_map_literal, STATE 989), (sym_pair, STATE 2660), (sym__element, STATE 2838),
     (sym_null_literal, STATE 989), (sym_record_literal, STATE 989),
     (sym__record_literal_no_const, STATE 924), (sym__expression, STATE 2562),
     (sym__real_expression, STATE 660), (sym_throw_expression, STATE 908),
     (sym_rethrow_expression, STATE 908), (sym_assignment_expression, STATE 908),
     (sym_assignable_expression, STATE 1940), (sym_function_expression, STATE 962),
     (sym_if_null_expression, STATE 1477), (sym_conditional_expression, STATE 1477),
     (sym_logical_or_expression, STATE 1477), (sym_logical_and_expression, STATE 1477),
     (sym_equality_expression, STATE 1477), (sym_type_cast_expression, STATE 1477),
     (sym_type_test_expression, STATE 1477), (sym_relational_expression, STATE 1477),
     (sym_bitwise_or_expression, STATE 1477), (sym_bitwise_xor_expression, STATE 1477),
     (sym_bitwise_and_expression, STATE 1477), (sym_shift_expression, STATE 1477),
     (sym_additive_expression, STATE 1477), (sym_multiplicative_expression, STATE 1477),
     (sym__unary_expression, STATE 1121), (sym_unary_expression, STATE 1303),
     (sym__postfix_expression, STATE 1303), (sym_postfix_expression, STATE 1301),
     (sym_spread_element, STATE 2660), (sym_prefix_operator, STATE 431),
     (sym_negation_operator, STATE 1450), (sym__exclamation_operator, STATE 1451),
     (sym_tilde_operator, STATE 1385), (sym_await_expression, STATE 1302),
     (sym_new_expression, STATE 962), (sym_const_object_expression, STATE 962),
     (sym__primary, STATE 668), (sym_parenthesized_expression, STATE 962),
     (sym_constructor_invocation, STATE 643), (sym_constructor_tearoff, STATE 962),
     (sym_type_arguments, STATE 3200), (sym_switch_expression, STATE 962),
     (sym__parenthesized_pattern, STATE 3182), (sym_list_pattern, STATE 3182),
     (sym_map_pattern, STATE 3182), (sym_record_pattern, STATE 3182),
     (sym_object_pattern, STATE 3182), (sym__outer_pattern, STATE 3410),
     (sym_pattern_assignment, STATE 908), (sym_if_element, STATE 2660),
     (sym_for_element, STATE 2660), (sym_type_parameters, STATE 2932),
     (sym__type_name, STATE 2661), (sym__formal_parameter_part, STATE 2339),
     (sym_formal_parameter_list, STATE 2020), (sym__strict_formal_parameter_list, STATE 2016),
     (sym__new_builtin, STATE 2079), (sym_this, STATE 962), (sym_super, STATE 1337),
     (sym_comment, STATE 107), (sym_documentation_comment, STATE 107),
     (aux_sym_string_literal_repeat1, STATE 474), (sym_identifier, ACTIONS 494),
     (anon_sym_POUND, ACTIONS 73), (sym_decimal_integer_literal, ACTIONS 75),
     (sym_hex_integer_literal, ACTIONS 77), (sym_decimal_floating_point_literal, ACTIONS 75),
     (anon_sym_true, ACTIONS 79), (anon_sym_false, ACTIONS 81), (anon_sym_DQUOTE, ACTIONS 83),
     (anon_sym_SQUOTE, ACTIONS 85), (anon_sym_DQUOTE_DQUOTE_DQUOTE, ACTIONS 87),
     (anon_sym_SQUOTE_SQUOTE_SQUOTE, ACTIONS 89), (anon_sym_r_DQUOTE, ACTIONS 91),
     (anon_sym_r_SQUOTE, ACTIONS 93), (anon_sym_r_DQUOTE_DQUOTE_DQUOTE, ACTIONS 95),
     (anon_sym_r_SQUOTE_SQUOTE_SQUOTE, ACTIONS 97), (anon_sym_LBRACE, ACTIONS 442),
     (anon_sym_RBRACE, ACTIONS 554), (anon_sym_LBRACK, ACTIONS 103),
     (anon_sym_null, ACTIONS 105), (anon_sym_LPAREN, ACTIONS 498), (anon_sym_throw, ACTIONS 109),
     (anon_sym_LT, ACTIONS 111), (sym_increment_operator, ACTIONS 113),
     (anon_sym_DOT_DOT_DOT, ACTIONS 167), (sym_minus_operator, ACTIONS 117),
     (anon_sym_BANG, ACTIONS 119), (anon_sym_TILDE, ACTIONS 121), (anon_sym_await, ACTIONS 410),
     (anon_sym_switch, ACTIONS 412), (anon_sym_if, ACTIONS 414), (anon_sym_for, ACTIONS 416),
     (sym_rethrow_builtin, ACTIONS 151), (anon_sym_new, ACTIONS 155),
     (sym_const_builtin, ACTIONS 478), (anon_sym_this, ACTIONS 159),
     (anon_sym_super, ACTIONS 161), (anon_sym_SLASH_SLASH, ACTIONS 3),
     (anon_sym_SLASH_STAR, ACTIONS 5), (anon_sym_SLASH_SLASH_SLASH, ACTIONS 7),
     (sym__block_comment, ACTIONS 9), (sym__documentation_block_comment, ACTIONS 11)]"

lemma row_ok_107: "table_row_ok 107 ts_parse_table_107"
  by (simp add: row_simps ts_parse_table_107_def)

definition ts_parse_table_108 :: table_row where
  "ts_parse_table_108 = [
     (sym__bool_literal, STATE 989), (sym__numeric_literal, STATE 989),
     (sym__literal, STATE 962), (sym_symbol_literal, STATE 989), (sym_true, STATE 900),
     (sym_false, STATE 900), (sym_string_literal, STATE 989),
     (sym__string_literal_double_quotes, STATE 627),
     (sym__string_literal_single_quotes, STATE 627),
     (sym__string_literal_double_quotes_multiple, STATE 627),
     (sym__string_literal_single_quotes_multiple, STATE 627),
     (sym__raw_string_literal_double_quotes, STATE 627),
     (sym__raw_string_literal_single_quotes, STATE 627),
     (sym__raw_string_literal_double_quotes_multiple, STATE 627),
     (sym__raw_string_literal_single_quotes_multiple, STATE 627), (sym_list_literal, STATE 989),
     (sym_set_or_map_literal, STATE 989), (sym_pair, STATE 2660), (sym__element, STATE 2838),
     (sym_null_literal, STATE 989), (sym_record_literal, STATE 989),
     (sym__record_literal_no_const, STATE 924), (sym__expression, STATE 2562),
     (sym__real_expression, STATE 660), (sym_throw_expression, STATE 908),
     (sym_rethrow_expression, STATE 908), (sym_assignment_expression, STATE 908),
     (sym_assignable_expression, STATE 1940), (sym_function_expression, STATE 962),
     (sym_if_null_expression, STATE 1477), (sym_conditional_expression, STATE 1477),
     (sym_logical_or_expression, STATE 1477), (sym_logical_and_expression, STATE 1477),
     (sym_equality_expression, STATE 1477), (sym_type_cast_expression, STATE 1477),
     (sym_type_test_expression, STATE 1477), (sym_relational_expression, STATE 1477),
     (sym_bitwise_or_expression, STATE 1477), (sym_bitwise_xor_expression, STATE 1477),
     (sym_bitwise_and_expression, STATE 1477), (sym_shift_expression, STATE 1477),
     (sym_additive_expression, STATE 1477), (sym_multiplicative_expression, STATE 1477),
     (sym__unary_expression, STATE 1121), (sym_unary_expression, STATE 1303),
     (sym__postfix_expression, STATE 1303), (sym_postfix_expression, STATE 1301),
     (sym_spread_element, STATE 2660), (sym_prefix_operator, STATE 431),
     (sym_negation_operator, STATE 1450), (sym__exclamation_operator, STATE 1451),
     (sym_tilde_operator, STATE 1385), (sym_await_expression, STATE 1302),
     (sym_new_expression, STATE 962), (sym_const_object_expression, STATE 962),
     (sym__primary, STATE 668), (sym_parenthesized_expression, STATE 962),
     (sym_constructor_invocation, STATE 643), (sym_constructor_tearoff, STATE 962),
     (sym_type_arguments, STATE 3200), (sym_switch_expression, STATE 962),
     (sym__parenthesized_pattern, STATE 3182), (sym_list_pattern, STATE 3182),
     (sym_map_pattern, STATE 3182), (sym_record_pattern, STATE 3182),
     (sym_object_pattern, STATE 3182), (sym__outer_pattern, STATE 3410),
     (sym_pattern_assignment, STATE 908), (sym_if_element, STATE 2660),
     (sym_for_element, STATE 2660), (sym_type_parameters, STATE 2932),
     (sym__type_name, STATE 2661), (sym__formal_parameter_part, STATE 2339),
     (sym_formal_parameter_list, STATE 2020), (sym__strict_formal_parameter_list, STATE 2016),
     (sym__new_builtin, STATE 2079), (sym_this, STATE 962), (sym_super, STATE 1337),
     (sym_comment, STATE 108), (sym_documentation_comment, STATE 108),
     (aux_sym_string_literal_repeat1, STATE 474), (sym_identifier, ACTIONS 494),
     (anon_sym_POUND, ACTIONS 73), (sym_decimal_integer_literal, ACTIONS 75),
     (sym_hex_integer_literal, ACTIONS 77), (sym_decimal_floating_point_literal, ACTIONS 75),
     (anon_sym_true, ACTIONS 79), (anon_sym_false, ACTIONS 81), (anon_sym_DQUOTE, ACTIONS 83),
     (anon_sym_SQUOTE, ACTIONS 85), (anon_sym_DQUOTE_DQUOTE_DQUOTE, ACTIONS 87),
     (anon_sym_SQUOTE_SQUOTE_SQUOTE, ACTIONS 89), (anon_sym_r_DQUOTE, ACTIONS 91),
     (anon_sym_r_SQUOTE, ACTIONS 93), (anon_sym_r_DQUOTE_DQUOTE_DQUOTE, ACTIONS 95),
     (anon_sym_r_SQUOTE_SQUOTE_SQUOTE, ACTIONS 97), (anon_sym_LBRACE, ACTIONS 442),
     (anon_sym_LBRACK, ACTIONS 103), (anon_sym_RBRACK, ACTIONS 558),
     (anon_sym_null, ACTIONS 105), (anon_sym_LPAREN, ACTIONS 498), (anon_sym_throw, ACTIONS 109),
     (anon_sym_LT, ACTIONS 111), (sym_increment_operator, ACTIONS 113),
     (anon_sym_DOT_DOT_DOT, ACTIONS 167), (sym_minus_operator, ACTIONS 117),
     (anon_sym_BANG, ACTIONS 119), (anon_sym_TILDE, ACTIONS 121), (anon_sym_await, ACTIONS 410),
     (anon_sym_switch, ACTIONS 412), (anon_sym_if, ACTIONS 414), (anon_sym_for, ACTIONS 416),
     (sym_rethrow_builtin, ACTIONS 151), (anon_sym_new, ACTIONS 155),
     (sym_const_builtin, ACTIONS 478), (anon_sym_this, ACTIONS 159),
     (anon_sym_super, ACTIONS 161), (anon_sym_SLASH_SLASH, ACTIONS 3),
     (anon_sym_SLASH_STAR, ACTIONS 5), (anon_sym_SLASH_SLASH_SLASH, ACTIONS 7),
     (sym__block_comment, ACTIONS 9), (sym__documentation_block_comment, ACTIONS 11)]"

lemma row_ok_108: "table_row_ok 108 ts_parse_table_108"
  by (simp add: row_simps ts_parse_table_108_def)

definition ts_parse_table_109 :: table_row where
  "ts_parse_table_109 = [
     (sym__bool_literal, STATE 989), (sym__numeric_literal, STATE 989),
     (sym__literal, STATE 962), (sym_symbol_literal, STATE 989), (sym_true, STATE 900),
     (sym_false, STATE 900), (sym_string_literal, STATE 989),
     (sym__string_literal_double_quotes, STATE 627),
     (sym__string_literal_single_quotes, STATE 627),
     (sym__string_literal_double_quotes_multiple, STATE 627),
     (sym__string_literal_single_quotes_multiple, STATE 627),
     (sym__raw_string_literal_double_quotes, STATE 627),
     (sym__raw_string_literal_single_quotes, STATE 627),
     (sym__raw_string_literal_double_quotes_multiple, STATE 627),
     (sym__raw_string_literal_single_quotes_multiple, STATE 627), (sym_list_literal, STATE 989),
     (sym_set_or_map_literal, STATE 989), (sym_pair, STATE 2660), (sym__element, STATE 2838),
     (sym_null_literal, STATE 989), (sym_record_literal, STATE 989),
     (sym__record_literal_no_const, STATE 924), (sym__expression, STATE 2562),
     (sym__real_expression, STATE 660), (sym_throw_expression, STATE 908),
     (sym_rethrow_expression, STATE 908), (sym_assignment_expression, STATE 908),
     (sym_assignable_expression, STATE 1940), (sym_function_expression, STATE 962),
     (sym_if_null_expression, STATE 1477), (sym_conditional_expression, STATE 1477),
     (sym_logical_or_expression, STATE 1477), (sym_logical_and_expression, STATE 1477),
     (sym_equality_expression, STATE 1477), (sym_type_cast_expression, STATE 1477),
     (sym_type_test_expression, STATE 1477), (sym_relational_expression, STATE 1477),
     (sym_bitwise_or_expression, STATE 1477), (sym_bitwise_xor_expression, STATE 1477),
     (sym_bitwise_and_expression, STATE 1477), (sym_shift_expression, STATE 1477),
     (sym_additive_expression, STATE 1477), (sym_multiplicative_expression, STATE 1477),
     (sym__unary_expression, STATE 1121), (sym_unary_expression, STATE 1303),
     (sym__postfix_expression, STATE 1303), (sym_postfix_expression, STATE 1301),
     (sym_spread_element, STATE 2660), (sym_prefix_operator, STATE 431),
     (sym_negation_operator, STATE 1450), (sym__exclamation_operator, STATE 1451),
     (sym_tilde_operator, STATE 1385), (sym_await_expression, STATE 1302),
     (sym_new_expression, STATE 962), (sym_const_object_expression, STATE 962),
     (sym__primary, STATE 668), (sym_parenthesized_expression, STATE 962),
     (sym_constructor_invocation, STATE 643), (sym_constructor_tearoff, STATE 962),
     (sym_type_arguments, STATE 3200), (sym_switch_expression, STATE 962),
     (sym__parenthesized_pattern, STATE 3182), (sym_list_pattern, STATE 3182),
     (sym_map_pattern, STATE 3182), (sym_record_pattern, STATE 3182),
     (sym_object_pattern, STATE 3182), (sym__outer_pattern, STATE 3410),
     (sym_pattern_assignment, STATE 908), (sym_if_element, STATE 2660),
     (sym_for_element, STATE 2660), (sym_type_parameters, STATE 2932),
     (sym__type_name, STATE 2661), (sym__formal_parameter_part, STATE 2339),
     (sym_formal_parameter_list, STATE 2020), (sym__strict_formal_parameter_list, STATE 2016),
     (sym__new_builtin, STATE 2079), (sym_this, STATE 962), (sym_super, STATE 1337),
     (sym_comment, STATE 109), (sym_documentation_comment, STATE 109),
     (aux_sym_string_literal_repeat1, STATE 474), (sym_identifier, ACTIONS 494),
     (anon_sym_POUND, ACTIONS 73), (sym_decimal_integer_literal, ACTIONS 75),
     (sym_hex_integer_literal, ACTIONS 77), (sym_decimal_floating_point_literal, ACTIONS 75),
     (anon_sym_true, ACTIONS 79), (anon_sym_false, ACTIONS 81), (anon_sym_DQUOTE, ACTIONS 83),
     (anon_sym_SQUOTE, ACTIONS 85), (anon_sym_DQUOTE_DQUOTE_DQUOTE, ACTIONS 87),
     (anon_sym_SQUOTE_SQUOTE_SQUOTE, ACTIONS 89), (anon_sym_r_DQUOTE, ACTIONS 91),
     (anon_sym_r_SQUOTE, ACTIONS 93), (anon_sym_r_DQUOTE_DQUOTE_DQUOTE, ACTIONS 95),
     (anon_sym_r_SQUOTE_SQUOTE_SQUOTE, ACTIONS 97), (anon_sym_LBRACE, ACTIONS 442),
     (anon_sym_RBRACE, ACTIONS 560), (anon_sym_LBRACK, ACTIONS 103),
     (anon_sym_null, ACTIONS 105), (anon_sym_LPAREN, ACTIONS 498), (anon_sym_throw, ACTIONS 109),
     (anon_sym_LT, ACTIONS 111), (sym_increment_operator, ACTIONS 113),
     (anon_sym_DOT_DOT_DOT, ACTIONS 167), (sym_minus_operator, ACTIONS 117),
     (anon_sym_BANG, ACTIONS 119), (anon_sym_TILDE, ACTIONS 121), (anon_sym_await, ACTIONS 410),
     (anon_sym_switch, ACTIONS 412), (anon_sym_if, ACTIONS 414), (anon_sym_for, ACTIONS 416),
     (sym_rethrow_builtin, ACTIONS 151), (anon_sym_new, ACTIONS 155),
     (sym_const_builtin, ACTIONS 478), (anon_sym_this, ACTIONS 159),
     (anon_sym_super, ACTIONS 161), (anon_sym_SLASH_SLASH, ACTIONS 3),
     (anon_sym_SLASH_STAR, ACTIONS 5), (anon_sym_SLASH_SLASH_SLASH, ACTIONS 7),
     (sym__block_comment, ACTIONS 9), (sym__documentation_block_comment, ACTIONS 11)]"

lemma row_ok_109: "table_row_ok 109 ts_parse_table_109"
  by (simp add: row_simps ts_parse_table_109_def)

definition ts_parse_table_110 :: table_row where
  "ts_parse_table_110 = [
     (sym__bool_literal, STATE 989), (sym__numeric_literal, STATE 989),
     (sym__literal, STATE 962), (sym_symbol_literal, STATE 989), (sym_true, STATE 900),
     (sym_false, STATE 900), (sym_string_literal, STATE 989),
     (sym__string_literal_double_quotes, STATE 627),
     (sym__string_literal_single_quotes, STATE 627),
     (sym__string_literal_double_quotes_multiple, STATE 627),
     (sym__string_literal_single_quotes_multiple, STATE 627),
     (sym__raw_string_literal_double_quotes, STATE 627),
     (sym__raw_string_literal_single_quotes, STATE 627),
     (sym__raw_string_literal_double_quotes_multiple, STATE 627),
     (sym__raw_string_literal_single_quotes_multiple, STATE 627), (sym_list_literal, STATE 989),
     (sym_set_or_map_literal, STATE 989), (sym_pair, STATE 2660), (sym__element, STATE 2838),
     (sym_null_literal, STATE 989), (sym_record_literal, STATE 989),
     (sym__record_literal_no_const, STATE 924), (sym__expression, STATE 2562),
     (sym__real_expression, STATE 660), (sym_throw_expression, STATE 908),
     (sym_rethrow_expression, STATE 908), (sym_assignment_expression, STATE 908),
     (sym_assignable_expression, STATE 1940), (sym_function_expression, STATE 962),
     (sym_if_null_expression, STATE 1477), (sym_conditional_expression, STATE 1477),
     (sym_logical_or_expression, STATE 1477), (sym_logical_and_expression, STATE 1477),
     (sym_equality_expression, STATE 1477), (sym_type_cast_expression, STATE 1477),
     (sym_type_test_expression, STATE 1477), (sym_relational_expression, STATE 1477),
     (sym_bitwise_or_expression, STATE 1477), (sym_bitwise_xor_expression, STATE 1477),
     (sym_bitwise_and_expression, STATE 1477), (sym_shift_expression, STATE 1477),
     (sym_additive_expression, STATE 1477), (sym_multiplicative_expression, STATE 1477),
     (sym__unary_expression, STATE 1121), (sym_unary_expression, STATE 1303),
     (sym__postfix_expression, STATE 1303), (sym_postfix_expression, STATE 1301),
     (sym_spread_element, STATE 2660), (sym_prefix_operator, STATE 431),
     (sym_negation_operator, STATE 1450), (sym__exclamation_operator, STATE 1451),
     (sym_tilde_operator, STATE 1385), (sym_await_expression, STATE 1302),
     (sym_new_expression, STATE 962), (sym_const_object_expression, STATE 962),
     (sym__primary, STATE 668), (sym_parenthesized_expression, STATE 962),
     (sym_constructor_invocation, STATE 643), (sym_constructor_tearoff, STATE 962),
     (sym_type_arguments, STATE 3200), (sym_switch_expression, STATE 962),
     (sym__parenthesized_pattern, STATE 3182), (sym_list_pattern, STATE 3182),
     (sym_map_pattern, STATE 3182), (sym_record_pattern, STATE 3182),
     (sym_object_pattern, STATE 3182), (sym__outer_pattern, STATE 3410),
     (sym_pattern_assignment, STATE 908), (sym_if_element, STATE 2660),
     (sym_for_element, STATE 2660), (sym_type_parameters, STATE 2932),
     (sym__type_name, STATE 2661), (sym__formal_parameter_part, STATE 2339),
     (sym_formal_parameter_list, STATE 2020), (sym__strict_formal_parameter_list, STATE 2016),
     (sym__new_builtin, STATE 2079), (sym_this, STATE 962), (sym_super, STATE 1337),
     (sym_comment, STATE 110), (sym_documentation_comment, STATE 110),
     (aux_sym_string_literal_repeat1, STATE 474), (sym_identifier, ACTIONS 494),
     (anon_sym_POUND, ACTIONS 73), (sym_decimal_integer_literal, ACTIONS 75),
     (sym_hex_integer_literal, ACTIONS 77), (sym_decimal_floating_point_literal, ACTIONS 75),
     (anon_sym_true, ACTIONS 79), (anon_sym_false, ACTIONS 81), (anon_sym_DQUOTE, ACTIONS 83),
     (anon_sym_SQUOTE, ACTIONS 85), (anon_sym_DQUOTE_DQUOTE_DQUOTE, ACTIONS 87),
     (anon_sym_SQUOTE_SQUOTE_SQUOTE, ACTIONS 89), (anon_sym_r_DQUOTE, ACTIONS 91),
     (anon_sym_r_SQUOTE, ACTIONS 93), (anon_sym_r_DQUOTE_DQUOTE_DQUOTE, ACTIONS 95),
     (anon_sym_r_SQUOTE_SQUOTE_SQUOTE, ACTIONS 97), (anon_sym_LBRACE, ACTIONS 442),
     (anon_sym_RBRACE, ACTIONS 562), (anon_sym_LBRACK, ACTIONS 103),
     (anon_sym_null, ACTIONS 105), (anon_sym_LPAREN, ACTIONS 498), (anon_sym_throw, ACTIONS 109),
     (anon_sym_LT, ACTIONS 111), (sym_increment_operator, ACTIONS 113),
     (anon_sym_DOT_DOT_DOT, ACTIONS 167), (sym_minus_operator, ACTIONS 117),
     (anon_sym_BANG, ACTIONS 119), (anon_sym_TILDE, ACTIONS 121), (anon_sym_await, ACTIONS 410),
     (anon_sym_switch, ACTIONS 412), (anon_sym_if, ACTIONS 414), (anon_sym_for, ACTIONS 416),
     (sym_rethrow_builtin, ACTIONS 151), (anon_sym_new, ACTIONS 155),
     (sym_const_builtin, ACTIONS 478), (anon_sym_this, ACTIONS 159),
     (anon_sym_super, ACTIONS 161), (anon_sym_SLASH_SLASH, ACTIONS 3),
     (anon_sym_SLASH_STAR, ACTIONS 5), (anon_sym_SLASH_SLASH_SLASH, ACTIONS 7),
     (sym__block_comment, ACTIONS 9), (sym__documentation_block_comment, ACTIONS 11)]"

lemma row_ok_110: "table_row_ok 110 ts_parse_table_110"
  by (simp add: row_simps ts_parse_table_110_def)

definition ts_parse_table_111 :: table_row where
  "ts_parse_table_111 = [
     (sym__bool_literal, STATE 989), (sym__numeric_literal, STATE 989),
     (sym__literal, STATE 962), (sym_symbol_literal, STATE 989), (sym_true, STATE 900),
     (sym_false, STATE 900), (sym_string_literal, STATE 989),
     (sym__string_literal_double_quotes, STATE 627),
     (sym__string_literal_single_quotes, STATE 627),
     (sym__string_literal_double_quotes_multiple, STATE 627),
     (sym__string_literal_single_quotes_multiple, STATE 627),
     (sym__raw_string_literal_double_quotes, STATE 627),
     (sym__raw_string_literal_single_quotes, STATE 627),
     (sym__raw_string_literal_double_quotes_multiple, STATE 627),
     (sym__raw_string_literal_single_quotes_multiple, STATE 627), (sym_list_literal, STATE 989),
     (sym_set_or_map_literal, STATE 989), (sym_pair, STATE 2660), (sym__element, STATE 2909),
     (sym_null_literal, STATE 989), (sym_record_literal, STATE 989),
     (sym__record_literal_no_const, STATE 924), (sym__expression, STATE 2562),
     (sym__real_expression, STATE 660), (sym_throw_expression, STATE 908),
     (sym_rethrow_expression, STATE 908), (sym_assignment_expression, STATE 908),
     (sym_assignable_expression, STATE 1940), (sym_function_expression, STATE 962),
     (sym_if_null_expression, STATE 1477), (sym_conditional_expression, STATE 1477),
     (sym_logical_or_expression, STATE 1477), (sym_logical_and_expression, STATE 1477),
     (sym_equality_expression, STATE 1477), (sym_type_cast_expression, STATE 1477),
     (sym_type_test_expression, STATE 1477), (sym_relational_expression, STATE 1477),
     (sym_bitwise_or_expression, STATE 1477), (sym_bitwise_xor_expression, STATE 1477),
     (sym_bitwise_and_expression, STATE 1477), (sym_shift_expression, STATE 1477),
     (sym_additive_expression, STATE 1477), (sym_multiplicative_expression, STATE 1477),
     (sym__unary_expression, STATE 1121), (sym_unary_expression, STATE 1303),
     (sym__postfix_expression, STATE 1303), (sym_postfix_expression, STATE 1301),
     (sym_spread_element, STATE 2660), (sym_prefix_operator, STATE 431),
     (sym_negation_operator, STATE 1450), (sym__exclamation_operator, STATE 1451),
     (sym_tilde_operator, STATE 1385), (sym_await_expression, STATE 1302),
     (sym_new_expression, STATE 962), (sym_const_object_expression, STATE 962),
     (sym__primary, STATE 668), (sym_parenthesized_expression, STATE 962),
     (sym_constructor_invocation, STATE 643), (sym_constructor_tearoff, STATE 962),
     (sym_type_arguments, STATE 3200), (sym_switch_expression, STATE 962),
     (sym__parenthesized_pattern, STATE 3182), (sym_list_pattern, STATE 3182),
     (sym_map_pattern, STATE 3182), (sym_record_pattern, STATE 3182),
     (sym_object_pattern, STATE 3182), (sym__outer_pattern, STATE 3410),
     (sym_pattern_assignment, STATE 908), (sym_if_element, STATE 2660),
     (sym_for_element, STATE 2660), (sym_type_parameters, STATE 2932),
     (sym__type_name, STATE 2661), (sym__formal_parameter_part, STATE 2339),
     (sym_formal_parameter_list, STATE 2020), (sym__strict_formal_parameter_list, STATE 2016),
     (sym__new_builtin, STATE 2079), (sym_this, STATE 962), (sym_super, STATE 1337),
     (sym_comment, STATE 111), (sym_documentation_comment, STATE 111),
     (aux_sym_string_literal_repeat1, STATE 474), (sym_identifier, ACTIONS 494),
     (anon_sym_POUND, ACTIONS 73), (sym_decimal_integer_literal, ACTIONS 75),
     (sym_hex_integer_literal, ACTIONS 77), (sym_decimal_floating_point_literal, ACTIONS 75),
     (anon_sym_true, ACTIONS 79), (anon_sym_false, ACTIONS 81), (anon_sym_DQUOTE, ACTIONS 83),
     (anon_sym_SQUOTE, ACTIONS 85), (anon_sym_DQUOTE_DQUOTE_DQUOTE, ACTIONS 87),
     (anon_sym_SQUOTE_SQUOTE_SQUOTE, ACTIONS 89), (anon_sym_r_DQUOTE, ACTIONS 91),
     (anon_sym_r_SQUOTE, ACTIONS 93), (anon_sym_r_DQUOTE_DQUOTE_DQUOTE, ACTIONS 95),
     (anon_sym_r_SQUOTE_SQUOTE_SQUOTE, ACTIONS 97), (anon_sym_LBRACE, ACTIONS 442),
     (anon_sym_LBRACK, ACTIONS 103), (anon_sym_RBRACK, ACTIONS 564),
     (anon_sym_null, ACTIONS 105), (anon_sym_LPAREN, ACTIONS 498), (anon_sym_throw, ACTIONS 109),
     (anon_sym_LT, ACTIONS 111), (sym_increment_operator, ACTIONS 113),
     (anon_sym_DOT_DOT_DOT, ACTIONS 167), (sym_minus_operator, ACTIONS 117),
     (anon_sym_BANG, ACTIONS 119), (anon_sym_TILDE, ACTIONS 121), (anon_sym_await, ACTIONS 410),
     (anon_sym_switch, ACTIONS 412), (anon_sym_if, ACTIONS 414), (anon_sym_for, ACTIONS 416),
     (sym_rethrow_builtin, ACTIONS 151), (anon_sym_new, ACTIONS 155),
     (sym_const_builtin, ACTIONS 478), (anon_sym_this, ACTIONS 159),
     (anon_sym_super, ACTIONS 161), (anon_sym_SLASH_SLASH, ACTIONS 3),
     (anon_sym_SLASH_STAR, ACTIONS 5), (anon_sym_SLASH_SLASH_SLASH, ACTIONS 7),
     (sym__block_comment, ACTIONS 9), (sym__documentation_block_comment, ACTIONS 11)]"

lemma row_ok_111: "table_row_ok 111 ts_parse_table_111"
  by (simp add: row_simps ts_parse_table_111_def)

definition ts_parse_table_112 :: table_row where
  "ts_parse_table_112 = [
     (sym__bool_literal, STATE 989), (sym__numeric_literal, STATE 989),
     (sym__literal, STATE 962), (sym_symbol_literal, STATE 989), (sym_true, STATE 900),
     (sym_false, STATE 900), (sym_string_literal, STATE 989),
     (sym__string_literal_double_quotes, STATE 627),
     (sym__string_literal_single_quotes, STATE 627),
     (sym__string_literal_double_quotes_multiple, STATE 627),
     (sym__string_literal_single_quotes_multiple, STATE 627),
     (sym__raw_string_literal_double_quotes, STATE 627),
     (sym__raw_string_literal_single_quotes, STATE 627),
     (sym__raw_string_literal_double_quotes_multiple, STATE 627),
     (sym__raw_string_literal_single_quotes_multiple, STATE 627), (sym_list_literal, STATE 989),
     (sym_set_or_map_literal, STATE 989), (sym_pair, STATE 2660), (sym__element, STATE 2911),
     (sym_null_literal, STATE 989), (sym_record_literal, STATE 989),
     (sym__record_literal_no_const, STATE 924), (sym__expression, STATE 2562),
     (sym__real_expression, STATE 660), (sym_throw_expression, STATE 908),
     (sym_rethrow_expression, STATE 908), (sym_assignment_expression, STATE 908),
     (sym_assignable_expression, STATE 1940), (sym_function_expression, STATE 962),
     (sym_if_null_expression, STATE 1477), (sym_conditional_expression, STATE 1477),
     (sym_logical_or_expression, STATE 1477), (sym_logical_and_expression, STATE 1477),
     (sym_equality_expression, STATE 1477), (sym_type_cast_expression, STATE 1477),
     (sym_type_test_expression, STATE 1477), (sym_relational_expression, STATE 1477),
     (sym_bitwise_or_expression, STATE 1477), (sym_bitwise_xor_expression, STATE 1477),
     (sym_bitwise_and_expression, STATE 1477), (sym_shift_expression, STATE 1477),
     (sym_additive_expression, STATE 1477), (sym_multiplicative_expression, STATE 1477),
     (sym__unary_expression, STATE 1121), (sym_unary_expression, STATE 1303),
     (sym__postfix_expression, STATE 1303), (sym_postfix_expression, STATE 1301),
     (sym_spread_element, STATE 2660), (sym_prefix_operator, STATE 431),
     (sym_negation_operator, STATE 1450), (sym__exclamation_operator, STATE 1451),
     (sym_tilde_operator, STATE 1385), (sym_await_expression, STATE 1302),
     (sym_new_expression, STATE 962), (sym_const_object_expression, STATE 962),
     (sym__primary, STATE 668), (sym_parenthesized_expression, STATE 962),
     (sym_constructor_invocation, STATE 643), (sym_constructor_tearoff, STATE 962),
     (sym_type_arguments, STATE 3200), (sym_switch_expression, STATE 962),
     (sym__parenthesized_pattern, STATE 3182), (sym_list_pattern, STATE 3182),
     (sym_map_pattern, STATE 3182), (sym_record_pattern, STATE 3182),
     (sym_object_pattern, STATE 3182), (sym__outer_pattern, STATE 3410),
     (sym_pattern_assignment, STATE 908), (sym_if_element, STATE 2660),
     (sym_for_element, STATE 2660), (sym_type_parameters, STATE 2932),
     (sym__type_name, STATE 2661), (sym__formal_parameter_part, STATE 2339),
     (sym_formal_parameter_list, STATE 2020), (sym__strict_formal_parameter_list, STATE 2016),
     (sym__new_builtin, STATE 2079), (sym_this, STATE 962), (sym_super, STATE 1337),
     (sym_comment, STATE 112), (sym_documentation_comment, STATE 112),
     (aux_sym_string_literal_repeat1, STATE 474), (sym_identifier, ACTIONS 494),
     (anon_sym_POUND, ACTIONS 73), (sym_decimal_integer_literal, ACTIONS 75),
     (sym_hex_integer_literal, ACTIONS 77), (sym_decimal_floating_point_literal, ACTIONS 75),
     (anon_sym_true, ACTIONS 79), (anon_sym_false, ACTIONS 81), (anon_sym_DQUOTE, ACTIONS 83),
     (anon_sym_SQUOTE, ACTIONS 85), (anon_sym_DQUOTE_DQUOTE_DQUOTE, ACTIONS 87),
     (anon_sym_SQUOTE_SQUOTE_SQUOTE, ACTIONS 89), (anon_sym_r_DQUOTE, ACTIONS 91),
     (anon_sym_r_SQUOTE, ACTIONS 93), (anon_sym_r_DQUOTE_DQUOTE_DQUOTE, ACTIONS 95),
     (anon_sym_r_SQUOTE_SQUOTE_SQUOTE, ACTIONS 97), (anon_sym_LBRACE, ACTIONS 442),
     (anon_sym_RBRACE, ACTIONS 566), (anon_sym_LBRACK, ACTIONS 103),
     (anon_sym_null, ACTIONS 105), (anon_sym_LPAREN, ACTIONS 498), (anon_sym_throw, ACTIONS 109),
     (anon_sym_LT, ACTIONS 111), (sym_increment_operator, ACTIONS 113),
     (anon_sym_DOT_DOT_DOT, ACTIONS 167), (sym_minus_operator, ACTIONS 117),
     (anon_sym_BANG, ACTIONS 119), (anon_sym_TILDE, ACTIONS 121), (anon_sym_await, ACTIONS 410),
     (anon_sym_switch, ACTIONS 412), (anon_sym_if, ACTIONS 414), (anon_sym_for, ACTIONS 416),
     (sym_rethrow_builtin, ACTIONS 151), (anon_sym_new, ACTIONS 155),
     (sym_const_builtin, ACTIONS 478), (anon_sym_this, ACTIONS 159),
     (anon_sym_super, ACTIONS 161), (anon_sym_SLASH_SLASH, ACTIONS 3),
     (anon_sym_SLASH_STAR, ACTIONS 5), (anon_sym_SLASH_SLASH_SLASH, ACTIONS 7),
     (sym__block_comment, ACTIONS 9), (sym__documentation_block_comment, ACTIONS 11)]"

lemma row_ok_112: "table_row_ok 112 ts_parse_table_112"
  by (simp add: row_simps ts_parse_table_112_def)

definition ts_parse_table_113 :: table_row where
  "ts_parse_table_113 = [
     (sym__bool_literal, STATE 989), (sym__numeric_literal, STATE 989),
     (sym__literal, STATE 962), (sym_symbol_literal, STATE 989), (sym_true, STATE 900),
     (sym_false, STATE 900), (sym_string_literal, STATE 989),
     (sym__string_literal_double_quotes, STATE 627),
     (sym__string_literal_single_quotes, STATE 627),
     (sym__string_literal_double_quotes_multiple, STATE 627),
     (sym__string_literal_single_quotes_multiple, STATE 627),
     (sym__raw_string_literal_double_quotes, STATE 627),
     (sym__raw_string_literal_single_quotes, STATE 627),
     (sym__raw_string_literal_double_quotes_multiple, STATE 627),
     (sym__raw_string_literal_single_quotes_multiple, STATE 627), (sym_list_literal, STATE 989),
     (sym_set_or_map_literal, STATE 989), (sym_pair, STATE 2660), (sym__element, STATE 2955),
     (sym_null_literal, STATE 989), (sym_record_literal, STATE 989),
     (sym__record_literal_no_const, STATE 924), (sym__expression, STATE 2562),
     (sym__real_expression, STATE 660), (sym_throw_expression, STATE 908),
     (sym_rethrow_expression, STATE 908), (sym_assignment_expression, STATE 908),
     (sym_assignable_expression, STATE 1940), (sym_function_expression, STATE 962),
     (sym_if_null_expression, STATE 1477), (sym_conditional_expression, STATE 1477),
     (sym_logical_or_expression, STATE 1477), (sym_logical_and_expression, STATE 1477),
     (sym_equality_expression, STATE 1477), (sym_type_cast_expression, STATE 1477),
     (sym_type_test_expression, STATE 1477), (sym_relational_expression, STATE 1477),
     (sym_bitwise_or_expression, STATE 1477), (sym_bitwise_xor_expression, STATE 1477),
     (sym_bitwise_and_expression, STATE 1477), (sym_shift_expression, STATE 1477),
     (sym_additive_expression, STATE 1477), (sym_multiplicative_expression, STATE 1477),
     (sym__unary_expression, STATE 1121), (sym_unary_expression, STATE 1303),
     (sym__postfix_expression, STATE 1303), (sym_postfix_expression, STATE 1301),
     (sym_spread_element, STATE 2660), (sym_prefix_operator, STATE 431),
     (sym_negation_operator, STATE 1450), (sym__exclamation_operator, STATE 1451),
     (sym_tilde_operator, STATE 1385), (sym_await_expression, STATE 1302),
     (sym_new_expression, STATE 962), (sym_const_object_expression, STATE 962),
     (sym__primary, STATE 668), (sym_parenthesized_expression, STATE 962),
     (sym_constructor_invocation, STATE 643), (sym_constructor_tearoff, STATE 962),
     (sym_type_arguments, STATE 3200), (sym_switch_expression, STATE 962),
     (sym__parenthesized_pattern, STATE 3182), (sym_list_pattern, STATE 3182),
     (sym_map_pattern, STATE 3182), (sym_record_pattern, STATE 3182),
     (sym_object_pattern, STATE 3182), (sym__outer_pattern, STATE 3410),
     (sym_pattern_assignment, STATE 908), (sym_if_element, STATE 2660),
     (sym_for_element, STATE 2660), (sym_type_parameters, STATE 2932),
     (sym__type_name, STATE 2661), (sym__formal_parameter_part, STATE 2339),
     (sym_formal_parameter_list, STATE 2020), (sym__strict_formal_parameter_list, STATE 2016),
     (sym__new_builtin, STATE 2079), (sym_this, STATE 962), (sym_super, STATE 1337),
     (sym_comment, STATE 113), (sym_documentation_comment, STATE 113),
     (aux_sym_string_literal_repeat1, STATE 474), (sym_identifier, ACTIONS 494),
     (anon_sym_POUND, ACTIONS 73), (sym_decimal_integer_literal, ACTIONS 75),
     (sym_hex_integer_literal, ACTIONS 77), (sym_decimal_floating_point_literal, ACTIONS 75),
     (anon_sym_true, ACTIONS 79), (anon_sym_false, ACTIONS 81), (anon_sym_DQUOTE, ACTIONS 83),
     (anon_sym_SQUOTE, ACTIONS 85), (anon_sym_DQUOTE_DQUOTE_DQUOTE, ACTIONS 87),
     (anon_sym_SQUOTE_SQUOTE_SQUOTE, ACTIONS 89), (anon_sym_r_DQUOTE, ACTIONS 91),
     (anon_sym_r_SQUOTE, ACTIONS 93), (anon_sym_r_DQUOTE_DQUOTE_DQUOTE, ACTIONS 95),
     (anon_sym_r_SQUOTE_SQUOTE_SQUOTE, ACTIONS 97), (anon_sym_LBRACE, ACTIONS 442),
     (anon_sym_LBRACK, ACTIONS 103), (anon_sym_RBRACK, ACTIONS 568),
     (anon_sym_null, ACTIONS 105), (anon_sym_LPAREN, ACTIONS 498), (anon_sym_throw, ACTIONS 109),
     (anon_sym_LT, ACTIONS 111), (sym_increment_operator, ACTIONS 113),
     (anon_sym_DOT_DOT_DOT, ACTIONS 167), (sym_minus_operator, ACTIONS 117),
     (anon_sym_BANG, ACTIONS 119), (anon_sym_TILDE, ACTIONS 121), (anon_sym_await, ACTIONS 410),
     (anon_sym_switch, ACTIONS 412), (anon_sym_if, ACTIONS 414), (anon_sym_for, ACTIONS 416),
     (sym_rethrow_builtin, ACTIONS 151), (anon_sym_new, ACTIONS 155),
     (sym_const_builtin, ACTIONS 478), (anon_sym_this, ACTIONS 159),
     (anon_sym_super, ACTIONS 161), (anon_sym_SLASH_SLASH, ACTIONS 3),
     (anon_sym_SLASH_STAR, ACTIONS 5), (anon_sym_SLASH_SLASH_SLASH, ACTIONS 7),
     (sym__block_comment, ACTIONS 9), (sym__documentation_block_comment, ACTIONS 11)]"

lemma row_ok_113: "table_row_ok 113 ts_parse_table_113"
  by (simp add: row_simps ts_parse_table_113_def)

definition ts_parse_table_114 :: table_row where
  "ts_parse_table_114 = [
     (sym__bool_literal, STATE 989), (sym__numeric_literal, STATE 989),
     (sym__literal, STATE 962), (sym_symbol_literal, STATE 989), (sym_true, STATE 900),
     (sym_false, STATE 900), (sym_string_literal, STATE 989),
     (sym__string_literal_double_quotes, STATE 627),
     (sym__string_literal_single_quotes, STATE 627),
     (sym__string_literal_double_quotes_multiple, STATE 627),
     (sym__string_literal_single_quotes_multiple, STATE 627),
     (sym__raw_string_literal_double_quotes, STATE 627),
     (sym__raw_string_literal_single_quotes, STATE 627),
     (sym__raw_string_literal_double_quotes_multiple, STATE 627),
     (sym__raw_string_literal_single_quotes_multiple, STATE 627), (sym_list_literal, STATE 989),
     (sym_set_or_map_literal, STATE 989), (sym_pair, STATE 2660), (sym__element, STATE 2956),
     (sym_null_literal, STATE 989), (sym_record_literal, STATE 989),
     (sym__record_literal_no_const, STATE 924), (sym__expression, STATE 2562),
     (sym__real_expression, STATE 660), (sym_throw_expression, STATE 908),
     (sym_rethrow_expression, STATE 908), (sym_assignment_expression, STATE 908),
     (sym_assignable_expression, STATE 1940), (sym_function_expression, STATE 962),
     (sym_if_null_expression, STATE 1477), (sym_conditional_expression, STATE 1477),
     (sym_logical_or_expression, STATE 1477), (sym_logical_and_expression, STATE 1477),
     (sym_equality_expression, STATE 1477), (sym_type_cast_expression, STATE 1477),
     (sym_type_test_expression, STATE 1477), (sym_relational_expression, STATE 1477),
     (sym_bitwise_or_expression, STATE 1477), (sym_bitwise_xor_expression, STATE 1477),
     (sym_bitwise_and_expression, STATE 1477), (sym_shift_expression, STATE 1477),
     (sym_additive_expression, STATE 1477), (sym_multiplicative_expression, STATE 1477),
     (sym__unary_expression, STATE 1121), (sym_unary_expression, STATE 1303),
     (sym__postfix_expression, STATE 1303), (sym_postfix_expression, STATE 1301),
     (sym_spread_element, STATE 2660), (sym_prefix_operator, STATE 431),
     (sym_negation_operator, STATE 1450), (sym__exclamation_operator, STATE 1451),
     (sym_tilde_operator, STATE 1385), (sym_await_expression, STATE 1302),
     (sym_new_expression, STATE 962), (sym_const_object_expression, STATE 962),
     (sym__primary, STATE 668), (sym_parenthesized_expression, STATE 962),
     (sym_constructor_invocation, STATE 643), (sym_constructor_tearoff, STATE 962),
     (sym_type_arguments, STATE 3200), (sym_switch_expression, STATE 962),
     (sym__parenthesized_pattern, STATE 3182), (sym_list_pattern, STATE 3182),
     (sym_map_pattern, STATE 3182), (sym_record_pattern, STATE 3182),
     (sym_object_pattern, STATE 3182), (sym__outer_pattern, STATE 3410),
     (sym_pattern_assignment, STATE 908), (sym_if_element, STATE 2660),
     (sym_for_element, STATE 2660), (sym_type_parameters, STATE 2932),
     (sym__type_name, STATE 2661), (sym__formal_parameter_part, STATE 2339),
     (sym_formal_parameter_list, STATE 2020), (sym__strict_formal_parameter_list, STATE 2016),
     (sym__new_builtin, STATE 2079), (sym_this, STATE 962), (sym_super, STATE 1337),
     (sym_comment, STATE 114), (sym_documentation_comment, STATE 114),
     (aux_sym_string_literal_repeat1, STATE 474), (sym_identifier, ACTIONS 494),
     (anon_sym_POUND, ACTIONS 73), (sym_decimal_integer_literal, ACTIONS 75),
     (sym_hex_integer_literal, ACTIONS 77), (sym_decimal_floating_point_literal, ACTIONS 75),
     (anon_sym_true, ACTIONS 79), (anon_sym_false, ACTIONS 81), (anon_sym_DQUOTE, ACTIONS 83),
     (anon_sym_SQUOTE, ACTIONS 85), (anon_sym_DQUOTE_DQUOTE_DQUOTE, ACTIONS 87),
     (anon_sym_SQUOTE_SQUOTE_SQUOTE, ACTIONS 89), (anon_sym_r_DQUOTE, ACTIONS 91),
     (anon_sym_r_SQUOTE, ACTIONS 93), (anon_sym_r_DQUOTE_DQUOTE_DQUOTE, ACTIONS 95),
     (anon_sym_r_SQUOTE_SQUOTE_SQUOTE, ACTIONS 97), (anon_sym_LBRACE, ACTIONS 442),
     (anon_sym_RBRACE, ACTIONS 570), (anon_sym_LBRACK, ACTIONS 103),
     (anon_sym_null, ACTIONS 105), (anon_sym_LPAREN, ACTIONS 498), (anon_sym_throw, ACTIONS 109),
     (anon_sym_LT, ACTIONS 111), (sym_increment_operator, ACTIONS 113),
     (anon_sym_DOT_DOT_DOT, ACTIONS 167), (sym_minus_operator, ACTIONS 117),
     (anon_sym_BANG, ACTIONS 119), (anon_sym_TILDE, ACTIONS 121), (anon_sym_await, ACTIONS 410),
     (anon_sym_switch, ACTIONS 412), (anon_sym_if, ACTIONS 414), (anon_sym_for, ACTIONS 416),
     (sym_rethrow_builtin, ACTIONS 151), (anon_sym_new, ACTIONS 155),
     (sym_const_builtin, ACTIONS 478), (anon_sym_this, ACTIONS 159),
     (anon_sym_super, ACTIONS 161), (anon_sym_SLASH_SLASH, ACTIONS 3),
     (anon_sym_SLASH_STAR, ACTIONS 5), (anon_sym_SLASH_SLASH_SLASH, ACTIONS 7),
     (sym__block_comment, ACTIONS 9), (sym__documentation_block_comment, ACTIONS 11)]"

lemma row_ok_114: "table_row_ok 114 ts_parse_table_114"
  by (simp add: row_simps ts_parse_table_114_def)

definition ts_parse_table_115 :: table_row where
  "ts_parse_table_115 = [
     (sym__bool_literal, STATE 989), (sym__numeric_literal, STATE 989),
     (sym__literal, STATE 962), (sym_symbol_literal, STATE 989), (sym_true, STATE 900),
     (sym_false, STATE 900), (sym_string_literal, STATE 989),
     (sym__string_literal_double_quotes, STATE 627),
     (sym__string_literal_single_quotes, STATE 627),
     (sym__string_literal_double_quotes_multiple, STATE 627),
     (sym__string_literal_single_quotes_multiple, STATE 627),
     (sym__raw_string_literal_double_quotes, STATE 627),
     (sym__raw_string_literal_single_quotes, STATE 627),
     (sym__raw_string_literal_double_quotes_multiple, STATE 627),
     (sym__raw_string_literal_single_quotes_multiple, STATE 627), (sym_list_literal, STATE 989),
     (sym_set_or_map_literal, STATE 989), (sym_pair, STATE 2660), (sym__element, STATE 2795),
     (sym_null_literal, STATE 989), (sym_record_literal, STATE 989),
     (sym__record_literal_no_const, STATE 924), (sym__expression, STATE 2562),
     (sym__real_expression, STATE 660), (sym_throw_expression, STATE 908),
     (sym_rethrow_expression, STATE 908), (sym_assignment_expression, STATE 908),
     (sym_assignable_expression, STATE 1940), (sym_function_expression, STATE 962),
     (sym_if_null_expression, STATE 1477), (sym_conditional_expression, STATE 1477),
     (sym_logical_or_expression, STATE 1477), (sym_logical_and_expression, STATE 1477),
     (sym_equality_expression, STATE 1477), (sym_type_cast_expression, STATE 1477),
     (sym_type_test_expression, STATE 1477), (sym_relational_expression, STATE 1477),
     (sym_bitwise_or_expression, STATE 1477), (sym_bitwise_xor_expression, STATE 1477),
     (sym_bitwise_and_expression, STATE 1477), (sym_shift_expression, STATE 1477),
     (sym_additive_expression, STATE 1477), (sym_multiplicative_expression, STATE 1477),
     (sym__unary_expression, STATE 1121), (sym_unary_expression, STATE 1303),
     (sym__postfix_expression, STATE 1303), (sym_postfix_expression, STATE 1301),
     (sym_spread_element, STATE 2660), (sym_prefix_operator, STATE 431),
     (sym_negation_operator, STATE 1450), (sym__exclamation_operator, STATE 1451),
     (sym_tilde_operator, STATE 1385), (sym_await_expression, STATE 1302),
     (sym_new_expression, STATE 962), (sym_const_object_expression, STATE 962),
     (sym__primary, STATE 668), (sym_parenthesized_expression, STATE 962),
     (sym_constructor_invocation, STATE 643), (sym_constructor_tearoff, STATE 962),
     (sym_type_arguments, STATE 3200), (sym_switch_expression, STATE 962),
     (sym__parenthesized_pattern, STATE 3182), (sym_list_pattern, STATE 3182),
     (sym_map_pattern, STATE 3182), (sym_record_pattern, STATE 3182),
     (sym_object_pattern, STATE 3182), (sym__outer_pattern, STATE 3410),
     (sym_pattern_assignment, STATE 908), (sym_if_element, STATE 2660),
     (sym_for_element, STATE 2660), (sym_type_parameters, STATE 2932),
     (sym__type_name, STATE 2661), (sym__formal_parameter_part, STATE 2339),
     (sym_formal_parameter_list, STATE 2020), (sym__strict_formal_parameter_list, STATE 2016),
     (sym__new_builtin, STATE 2079), (sym_this, STATE 962), (sym_super, STATE 1337),
     (sym_comment, STATE 115), (sym_documentation_comment, STATE 115),
     (aux_sym_string_literal_repeat1, STATE 474), (sym_identifier, ACTIONS 494),
     (anon_sym_POUND, ACTIONS 73), (sym_decimal_integer_literal, ACTIONS 75),
     (sym_hex_integer_literal, ACTIONS 77), (sym_decimal_floating_point_literal, ACTIONS 75),
     (anon_sym_true, ACTIONS 79), (anon_sym_false, ACTIONS 81), (anon_sym_DQUOTE, ACTIONS 83),
     (anon_sym_SQUOTE, ACTIONS 85), (anon_sym_DQUOTE_DQUOTE_DQUOTE, ACTIONS 87),
     (anon_sym_SQUOTE_SQUOTE_SQUOTE, ACTIONS 89), (anon_sym_r_DQUOTE, ACTIONS 91),
     (anon_sym_r_SQUOTE, ACTIONS 93), (anon_sym_r_DQUOTE_DQUOTE_DQUOTE, ACTIONS 95),
     (anon_sym_r_SQUOTE_SQUOTE_SQUOTE, ACTIONS 97), (anon_sym_LBRACE, ACTIONS 442),
     (anon_sym_LBRACK, ACTIONS 103), (anon_sym_RBRACK, ACTIONS 556),
     (anon_sym_null, ACTIONS 105), (anon_sym_LPAREN, ACTIONS 498), (anon_sym_throw, ACTIONS 109),
     (anon_sym_LT, ACTIONS 111), (sym_increment_operator, ACTIONS 113),
     (anon_sym_DOT_DOT_DOT, ACTIONS 167), (sym_minus_operator, ACTIONS 117),
     (anon_sym_BANG, ACTIONS 119), (anon_sym_TILDE, ACTIONS 121), (anon_sym_await, ACTIONS 410),
     (anon_sym_switch, ACTIONS 412), (anon_sym_if, ACTIONS 414), (anon_sym_for, ACTIONS 416),
     (sym_rethrow_builtin, ACTIONS 151), (anon_sym_new, ACTIONS 155),
     (sym_const_builtin, ACTIONS 478), (anon_sym_this, ACTIONS 159),
     (anon_sym_super, ACTIONS 161), (anon_sym_SLASH_SLASH, ACTIONS 3),
     (anon_sym_SLASH_STAR, ACTIONS 5), (anon_sym_SLASH_SLASH_SLASH, ACTIONS 7),
     (sym__block_comment, ACTIONS 9), (sym__documentation_block_comment, ACTIONS 11)]"

lemma row_ok_115: "table_row_ok 115 ts_parse_table_115"
  by (simp add: row_simps ts_parse_table_115_def)

definition ts_parse_table_116 :: table_row where
  "ts_parse_table_116 = [
     (sym__bool_literal, STATE 989), (sym__numeric_literal, STATE 989),
     (sym__literal, STATE 962), (sym_symbol_literal, STATE 989), (sym_true, STATE 900),
     (sym_false, STATE 900), (sym_string_literal, STATE 989),
     (sym__string_literal_double_quotes, STATE 627),
     (sym__string_literal_single_quotes, STATE 627),
     (sym__string_literal_double_quotes_multiple, STATE 627),
     (sym__string_literal_single_quotes_multiple, STATE 627),
     (sym__raw_string_literal_double_quotes, STATE 627),
     (sym__raw_string_literal_single_quotes, STATE 627),
     (sym__raw_string_literal_double_quotes_multiple, STATE 627),
     (sym__raw_string_literal_single_quotes_multiple, STATE 627), (sym_list_literal, STATE 989),
     (sym_set_or_map_literal, STATE 989), (sym_pair, STATE 2660), (sym__element, STATE 2790),
     (sym_null_literal, STATE 989), (sym_record_literal, STATE 989),
     (sym__record_literal_no_const, STATE 924), (sym__expression, STATE 2562),
     (sym__real_expression, STATE 660), (sym_throw_expression, STATE 908),
     (sym_rethrow_expression, STATE 908), (sym_assignment_expression, STATE 908),
     (sym_assignable_expression, STATE 1940), (sym_function_expression, STATE 962),
     (sym_if_null_expression, STATE 1477), (sym_conditional_expression, STATE 1477),
     (sym_logical_or_expression, STATE 1477), (sym_logical_and_expression, STATE 1477),
     (sym_equality_expression, STATE 1477), (sym_type_cast_expression, STATE 1477),
     (sym_type_test_expression, STATE 1477), (sym_relational_expression, STATE 1477),
     (sym_bitwise_or_expression, STATE 1477), (sym_bitwise_xor_expression, STATE 1477),
     (sym_bitwise_and_expression, STATE 1477), (sym_shift_expression, STATE 1477),
     (sym_additive_expression, STATE 1477), (sym_multiplicative_expression, STATE 1477),
     (sym__unary_expression, STATE 1121), (sym_unary_expression, STATE 1303),
     (sym__postfix_expression, STATE 1303), (sym_postfix_expression, STATE 1301),
     (sym_spread_element, STATE 2660), (sym_prefix_operator, STATE 431),
     (sym_negation_operator, STATE 1450), (sym__exclamation_operator, STATE 1451),
     (sym_tilde_operator, STATE 1385), (sym_await_expression, STATE 1302),
     (sym_new_expression, STATE 962), (sym_const_object_expression, STATE 962),
     (sym__primary, STATE 668), (sym_parenthesized_expression, STATE 962),
     (sym_constructor_invocation, STATE 643), (sym_constructor_tearoff, STATE 962),
     (sym_type_arguments, STATE 3200), (sym_switch_expression, STATE 962),
     (sym__parenthesized_pattern, STATE 3182), (sym_list_pattern, STATE 3182),
     (sym_map_pattern, STATE 3182), (sym_record_pattern, STATE 3182),
     (sym_object_pattern, STATE 3182), (sym__outer_pattern, STATE 3410),
     (sym_pattern_assignment, STATE 908), (sym_if_element, STATE 2660),
     (sym_for_element, STATE 2660), (sym_type_parameters, STATE 2932),
     (sym__type_name, STATE 2661), (sym__formal_parameter_part, STATE 2339),
     (sym_formal_parameter_list, STATE 2020), (sym__strict_formal_parameter_list, STATE 2016),
     (sym__new_builtin, STATE 2079), (sym_this, STATE 962), (sym_super, STATE 1337),
     (sym_comment, STATE 116), (sym_documentation_comment, STATE 116),
     (aux_sym_string_literal_repeat1, STATE 474), (sym_identifier, ACTIONS 494),
     (anon_sym_POUND, ACTIONS 73), (sym_decimal_integer_literal, ACTIONS 75),
     (sym_hex_integer_literal, ACTIONS 77), (sym_decimal_floating_point_literal, ACTIONS 75),
     (anon_sym_true, ACTIONS 79), (anon_sym_false, ACTIONS 81), (anon_sym_DQUOTE, ACTIONS 83),
     (anon_sym_SQUOTE, ACTIONS 85), (anon_sym_DQUOTE_DQUOTE_DQUOTE, ACTIONS 87),
     (anon_sym_SQUOTE_SQUOTE_SQUOTE, ACTIONS 89), (anon_sym_r_DQUOTE, ACTIONS 91),
     (anon_sym_r_SQUOTE, ACTIONS 93), (anon_sym_r_DQUOTE_DQUOTE_DQUOTE, ACTIONS 95),
     (anon_sym_r_SQUOTE_SQUOTE_SQUOTE, ACTIONS 97), (anon_sym_LBRACE, ACTIONS 442),
     (anon_sym_RBRACE, ACTIONS 552), (anon_sym_LBRACK, ACTIONS 103),
     (anon_sym_null, ACTIONS 105), (anon_sym_LPAREN, ACTIONS 498), (anon_sym_throw, ACTIONS 109),
     (anon_sym_LT, ACTIONS 111), (sym_increment_operator, ACTIONS 113),
     (anon_sym_DOT_DOT_DOT, ACTIONS 167), (sym_minus_operator, ACTIONS 117),
     (anon_sym_BANG, ACTIONS 119), (anon_sym_TILDE, ACTIONS 121), (anon_sym_await, ACTIONS 410),
     (anon_sym_switch, ACTIONS 412), (anon_sym_if, ACTIONS 414), (anon_sym_for, ACTIONS 416),
     (sym_rethrow_builtin, ACTIONS 151), (anon_sym_new, ACTIONS 155),
     (sym_const_builtin, ACTIONS 478), (anon_sym_this, ACTIONS 159),
     (anon_sym_super, ACTIONS 161), (anon_sym_SLASH_SLASH, ACTIONS 3),
     (anon_sym_SLASH_STAR, ACTIONS 5), (anon_sym_SLASH_SLASH_SLASH, ACTIONS 7),
     (sym__block_comment, ACTIONS 9), (sym__documentation_block_comment, ACTIONS 11)]"

lemma row_ok_116: "table_row_ok 116 ts_parse_table_116"
  by (simp add: row_simps ts_parse_table_116_def)

definition ts_parse_table_117 :: table_row where
  "ts_parse_table_117 = [
     (sym__bool_literal, STATE 989), (sym__numeric_literal, STATE 989),
     (sym__literal, STATE 962), (sym_symbol_literal, STATE 989), (sym_true, STATE 900),
     (sym_false, STATE 900), (sym_string_literal, STATE 989),
     (sym__string_literal_double_quotes, STATE 627),
     (sym__string_literal_single_quotes, STATE 627),
     (sym__string_literal_double_quotes_multiple, STATE 627),
     (sym__string_literal_single_quotes_multiple, STATE 627),
     (sym__raw_string_literal_double_quotes, STATE 627),
     (sym__raw_string_literal_single_quotes, STATE 627),
     (sym__raw_string_literal_double_quotes_multiple, STATE 627),
     (sym__raw_string_literal_single_quotes_multiple, STATE 627), (sym_list_literal, STATE 989),
     (sym_set_or_map_literal, STATE 989), (sym_pair, STATE 2660), (sym__element, STATE 2838),
     (sym_null_literal, STATE 989), (sym_record_literal, STATE 989),
     (sym__record_literal_no_const, STATE 924), (sym__expression, STATE 2562),
     (sym__real_expression, STATE 660), (sym_throw_expression, STATE 908),
     (sym_rethrow_expression, STATE 908), (sym_assignment_expression, STATE 908),
     (sym_assignable_expression, STATE 1940), (sym_function_expression, STATE 962),
     (sym_if_null_expression, STATE 1477), (sym_conditional_expression, STATE 1477),
     (sym_logical_or_expression, STATE 1477), (sym_logical_and_expression, STATE 1477),
     (sym_equality_expression, STATE 1477), (sym_type_cast_expression, STATE 1477),
     (sym_type_test_expression, STATE 1477), (sym_relational_expression, STATE 1477),
     (sym_bitwise_or_expression, STATE 1477), (sym_bitwise_xor_expression, STATE 1477),
     (sym_bitwise_and_expression, STATE 1477), (sym_shift_expression, STATE 1477),
     (sym_additive_expression, STATE 1477), (sym_multiplicative_expression, STATE 1477),
     (sym__unary_expression, STATE 1121), (sym_unary_expression, STATE 1303),
     (sym__postfix_expression, STATE 1303), (sym_postfix_expression, STATE 1301),
     (sym_spread_element, STATE 2660), (sym_prefix_operator, STATE 431),
     (sym_negation_operator, STATE 1450), (sym__exclamation_operator, STATE 1451),
     (sym_tilde_operator, STATE 1385), (sym_await_expression, STATE 1302),
     (sym_new_expression, STATE 962), (sym_const_object_expression, STATE 962),
     (sym__primary, STATE 668), (sym_parenthesized_expression, STATE 962),
     (sym_constructor_invocation, STATE 643), (sym_constructor_tearoff, STATE 962),
     (sym_type_arguments, STATE 3200), (sym_switch_expression, STATE 962),
     (sym__parenthesized_pattern, STATE 3182), (sym_list_pattern, STATE 3182),
     (sym_map_pattern, STATE 3182), (sym_record_pattern, STATE 3182),
     (sym_object_pattern, STATE 3182), (sym__outer_pattern, STATE 3410),
     (sym_pattern_assignment, STATE 908), (sym_if_element, STATE 2660),
     (sym_for_element, STATE 2660), (sym_type_parameters, STATE 2932),
     (sym__type_name, STATE 2661), (sym__formal_parameter_part, STATE 2339),
     (sym_formal_parameter_list, STATE 2020), (sym__strict_formal_parameter_list, STATE 2016),
     (sym__new_builtin, STATE 2079), (sym_this, STATE 962), (sym_super, STATE 1337),
     (sym_comment, STATE 117), (sym_documentation_comment, STATE 117),
     (aux_sym_string_literal_repeat1, STATE 474), (sym_identifier, ACTIONS 494),
     (anon_sym_POUND, ACTIONS 73), (sym_decimal_integer_literal, ACTIONS 75),
     (sym_hex_integer_literal, ACTIONS 77), (sym_decimal_floating_point_literal, ACTIONS 75),
     (anon_sym_true, ACTIONS 79), (anon_sym_false, ACTIONS 81), (anon_sym_DQUOTE, ACTIONS 83),
     (anon_sym_SQUOTE, ACTIONS 85), (anon_sym_DQUOTE_DQUOTE_DQUOTE, ACTIONS 87),
     (anon_sym_SQUOTE_SQUOTE_SQUOTE, ACTIONS 89), (anon_sym_r_DQUOTE, ACTIONS 91),
     (anon_sym_r_SQUOTE, ACTIONS 93), (anon_sym_r_DQUOTE_DQUOTE_DQUOTE, ACTIONS 95),
     (anon_sym_r_SQUOTE_SQUOTE_SQUOTE, ACTIONS 97), (anon_sym_LBRACE, ACTIONS 442),
     (anon_sym_LBRACK, ACTIONS 103), (anon_sym_RBRACK, ACTIONS 572),
     (anon_sym_null, ACTIONS 105), (anon_sym_LPAREN, ACTIONS 498), (anon_sym_throw, ACTIONS 109),
     (anon_sym_LT, ACTIONS 111), (sym_increment_operator, ACTIONS 113),
     (anon_sym_DOT_DOT_DOT, ACTIONS 167), (sym_minus_operator, ACTIONS 117),
     (anon_sym_BANG, ACTIONS 119), (anon_sym_TILDE, ACTIONS 121), (anon_sym_await, ACTIONS 410),
     (anon_sym_switch, ACTIONS 412), (anon_sym_if, ACTIONS 414), (anon_sym_for, ACTIONS 416),
     (sym_rethrow_builtin, ACTIONS 151), (anon_sym_new, ACTIONS 155),
     (sym_const_builtin, ACTIONS 478), (anon_sym_this, ACTIONS 159),
     (anon_sym_super, ACTIONS 161), (anon_sym_SLASH_SLASH, ACTIONS 3),
     (anon_sym_SLASH_STAR, ACTIONS 5), (anon_sym_SLASH_SLASH_SLASH, ACTIONS 7),
     (sym__block_comment, ACTIONS 9), (sym__documentation_block_comment, ACTIONS 11)]"

lemma row_ok_117: "table_row_ok 117 ts_parse_table_117"
  by (simp add: row_simps ts_parse_table_117_def)

definition ts_parse_table_118 :: table_row where
  "ts_parse_table_118 = [
     (sym__bool_literal, STATE 989), (sym__numeric_literal, STATE 989),
     (sym__literal, STATE 962), (sym_symbol_literal, STATE 989), (sym_true, STATE 900),
     (sym_false, STATE 900), (sym_string_literal, STATE 989),
     (sym__string_literal_double_quotes, STATE 627),
     (sym__string_literal_single_quotes, STATE 627),
     (sym__string_literal_double_quotes_multiple, STATE 627),
     (sym__string_literal_single_quotes_multiple, STATE 627),
     (sym__raw_string_literal_double_quotes, STATE 627),
     (sym__raw_string_literal_single_quotes, STATE 627),
     (sym__raw_string_literal_double_quotes_multiple, STATE 627),
     (sym__raw_string_literal_single_quotes_multiple, STATE 627), (sym_list_literal, STATE 989),
     (sym_set_or_map_literal, STATE 989), (sym_pair, STATE 2660), (sym__element, STATE 2838),
     (sym_null_literal, STATE 989), (sym_record_literal, STATE 989),
     (sym__record_literal_no_const, STATE 924), (sym__expression, STATE 2562),
     (sym__real_expression, STATE 660), (sym_throw_expression, STATE 908),
     (sym_rethrow_expression, STATE 908), (sym_assignment_expression, STATE 908),
     (sym_assignable_expression, STATE 1940), (sym_function_expression, STATE 962),
     (sym_if_null_expression, STATE 1477), (sym_conditional_expression, STATE 1477),
     (sym_logical_or_expression, STATE 1477), (sym_logical_and_expression, STATE 1477),
     (sym_equality_expression, STATE 1477), (sym_type_cast_expression, STATE 1477),
     (sym_type_test_expression, STATE 1477), (sym_relational_expression, STATE 1477),
     (sym_bitwise_or_expression, STATE 1477), (sym_bitwise_xor_expression, STATE 1477),
     (sym_bitwise_and_expression, STATE 1477), (sym_shift_expression, STATE 1477),
     (sym_additive_expression, STATE 1477), (sym_multiplicative_expression, STATE 1477),
     (sym__unary_expression, STATE 1121), (sym_unary_expression, STATE 1303),
     (sym__postfix_expression, STATE 1303), (sym_postfix_expression, STATE 1301),
     (sym_spread_element, STATE 2660), (sym_prefix_operator, STATE 431),
     (sym_negation_operator, STATE 1450), (sym__exclamation_operator, STATE 1451),
     (sym_tilde_operator, STATE 1385), (sym_await_expression, STATE 1302),
     (sym_new_expression, STATE 962), (sym_const_object_expression, STATE 962),
     (sym__primary, STATE 668), (sym_parenthesized_expression, STATE 962),
     (sym_constructor_invocation, STATE 643), (sym_constructor_tearoff, STATE 962),
     (sym_type_arguments, STATE 3200), (sym_switch_expression, STATE 962),
     (sym__parenthesized_pattern, STATE 3182), (sym_list_pattern, STATE 3182),
     (sym_map_pattern, STATE 3182), (sym_record_pattern, STATE 3182),
     (sym_object_pattern, STATE 3182), (sym__outer_pattern, STATE 3410),
     (sym_pattern_assignment, STATE 908), (sym_if_element, STATE 2660),
     (sym_for_element, STATE 2660), (sym_type_parameters, STATE 2932),
     (sym__type_name, STATE 2661), (sym__formal_parameter_part, STATE 2339),
     (sym_formal_parameter_list, STATE 2020), (sym__strict_formal_parameter_list, STATE 2016),
     (sym__new_builtin, STATE 2079), (sym_this, STATE 962), (sym_super, STATE 1337),
     (sym_comment, STATE 118), (sym_documentation_comment, STATE 118),
     (aux_sym_string_literal_repeat1, STATE 474), (sym_identifier, ACTIONS 494),
     (anon_sym_POUND, ACTIONS 73), (sym_decimal_integer_literal, ACTIONS 75),
     (sym_hex_integer_literal, ACTIONS 77), (sym_decimal_floating_point_literal, ACTIONS 75),
     (anon_sym_true, ACTIONS 79), (anon_sym_false, ACTIONS 81), (anon_sym_DQUOTE, ACTIONS 83),
     (anon_sym_SQUOTE, ACTIONS 85), (anon_sym_DQUOTE_DQUOTE_DQUOTE, ACTIONS 87),
     (anon_sym_SQUOTE_SQUOTE_SQUOTE, ACTIONS 89), (anon_sym_r_DQUOTE, ACTIONS 91),
     (anon_sym_r_SQUOTE, ACTIONS 93), (anon_sym_r_DQUOTE_DQUOTE_DQUOTE, ACTIONS 95),
     (anon_sym_r_SQUOTE_SQUOTE_SQUOTE, ACTIONS 97), (anon_sym_LBRACE, ACTIONS 442),
     (anon_sym_LBRACK, ACTIONS 103), (anon_sym_RBRACK, ACTIONS 508),
     (anon_sym_null, ACTIONS 105), (anon_sym_LPAREN, ACTIONS 498), (anon_sym_throw, ACTIONS 109),
     (anon_sym_LT, ACTIONS 111), (sym_increment_operator, ACTIONS 113),
     (anon_sym_DOT_DOT_DOT, ACTIONS 167), (sym_minus_operator, ACTIONS 117),
     (anon_sym_BANG, ACTIONS 119), (anon_sym_TILDE, ACTIONS 121), (anon_sym_await, ACTIONS 410),
     (anon_sym_switch, ACTIONS 412), (anon_sym_if, ACTIONS 414), (anon_sym_for, ACTIONS 416),
     (sym_rethrow_builtin, ACTIONS 151), (anon_sym_new, ACTIONS 155),
     (sym_const_builtin, ACTIONS 478), (anon_sym_this, ACTIONS 159),
     (anon_sym_super, ACTIONS 161), (anon_sym_SLASH_SLASH, ACTIONS 3),
     (anon_sym_SLASH_STAR, ACTIONS 5), (anon_sym_SLASH_SLASH_SLASH, ACTIONS 7),
     (sym__block_comment, ACTIONS 9), (sym__documentation_block_comment, ACTIONS 11)]"

lemma row_ok_118: "table_row_ok 118 ts_parse_table_118"
  by (simp add: row_simps ts_parse_table_118_def)

definition ts_parse_table_119 :: table_row where
  "ts_parse_table_119 = [
     (sym__bool_literal, STATE 989), (sym__numeric_literal, STATE 989),
     (sym__literal, STATE 962), (sym_symbol_literal, STATE 989), (sym_true, STATE 900),
     (sym_false, STATE 900), (sym_string_literal, STATE 989),
     (sym__string_literal_double_quotes, STATE 627),
     (sym__string_literal_single_quotes, STATE 627),
     (sym__string_literal_double_quotes_multiple, STATE 627),
     (sym__string_literal_single_quotes_multiple, STATE 627),
     (sym__raw_string_literal_double_quotes, STATE 627),
     (sym__raw_string_literal_single_quotes, STATE 627),
     (sym__raw_string_literal_double_quotes_multiple, STATE 627),
     (sym__raw_string_literal_single_quotes_multiple, STATE 627), (sym_list_literal, STATE 989),
     (sym_set_or_map_literal, STATE 989), (sym_pair, STATE 2660), (sym__element, STATE 2782),
     (sym_null_literal, STATE 989), (sym_record_literal, STATE 989),
     (sym__record_literal_no_const, STATE 924), (sym__expression, STATE 2562),
     (sym__real_expression, STATE 660), (sym_throw_expression, STATE 908),
     (sym_rethrow_expression, STATE 908), (sym_assignment_expression, STATE 908),
     (sym_assignable_expression, STATE 1940), (sym_function_expression, STATE 962),
     (sym_if_null_expression, STATE 1477), (sym_conditional_expression, STATE 1477),
     (sym_logical_or_expression, STATE 1477), (sym_logical_and_expression, STATE 1477),
     (sym_equality_expression, STATE 1477), (sym_type_cast_expression, STATE 1477),
     (sym_type_test_expression, STATE 1477), (sym_relational_expression, STATE 1477),
     (sym_bitwise_or_expression, STATE 1477), (sym_bitwise_xor_expression, STATE 1477),
     (sym_bitwise_and_expression, STATE 1477), (sym_shift_expression, STATE 1477),
     (sym_additive_expression, STATE 1477), (sym_multiplicative_expression, STATE 1477),
     (sym__unary_expression, STATE 1121), (sym_unary_expression, STATE 1303),
     (sym__postfix_expression, STATE 1303), (sym_postfix_expression, STATE 1301),
     (sym_spread_element, STATE 2660), (sym_prefix_operator, STATE 431),
     (sym_negation_operator, STATE 1450), (sym__exclamation_operator, STATE 1451),
     (sym_tilde_operator, STATE 1385), (sym_await_expression, STATE 1302),
     (sym_new_expression, STATE 962), (sym_const_object_expression, STATE 962),
     (sym__primary, STATE 668), (sym_parenthesized_expression, STATE 962),
     (sym_constructor_invocation, STATE 643), (sym_constructor_tearoff, STATE 962),
     (sym_type_arguments, STATE 3200), (sym_switch_expression, STATE 962),
     (sym__parenthesized_pattern, STATE 3182), (sym_list_pattern, STATE 3182),
     (sym_map_pattern, STATE 3182), (sym_record_pattern, STATE 3182),
     (sym_object_pattern, STATE 3182), (sym__outer_pattern, STATE 3410),
     (sym_pattern_assignment, STATE 908), (sym_if_element, STATE 2660),
     (sym_for_element, STATE 2660), (sym_type_parameters, STATE 2932),
     (sym__type_name, STATE 2661), (sym__formal_parameter_part, STATE 2339),
     (sym_formal_parameter_list, STATE 2020), (sym__strict_formal_parameter_list, STATE 2016),
     (sym__new_builtin, STATE 2079), (sym_this, STATE 962), (sym_super, STATE 1337),
     (sym_comment, STATE 119), (sym_documentation_comment, STATE 119),
     (aux_sym_string_literal_repeat1, STATE 474), (sym_identifier, ACTIONS 494),
     (anon_sym_POUND, ACTIONS 73), (sym_decimal_integer_literal, ACTIONS 75),
     (sym_hex_integer_literal, ACTIONS 77), (sym_decimal_floating_point_literal, ACTIONS 75),
     (anon_sym_true, ACTIONS 79), (anon_sym_false, ACTIONS 81), (anon_sym_DQUOTE, ACTIONS 83),
     (anon_sym_SQUOTE, ACTIONS 85), (anon_sym_DQUOTE_DQUOTE_DQUOTE, ACTIONS 87),
     (anon_sym_SQUOTE_SQUOTE_SQUOTE, ACTIONS 89), (anon_sym_r_DQUOTE, ACTIONS 91),
     (anon_sym_r_SQUOTE, ACTIONS 93), (anon_sym_r_DQUOTE_DQUOTE_DQUOTE, ACTIONS 95),
     (anon_sym_r_SQUOTE_SQUOTE_SQUOTE, ACTIONS 97), (anon_sym_LBRACE, ACTIONS 442),
     (anon_sym_LBRACK, ACTIONS 103), (anon_sym_RBRACK, ACTIONS 512),
     (anon_sym_null, ACTIONS 105), (anon_sym_LPAREN, ACTIONS 498), (anon_sym_throw, ACTIONS 109),
     (anon_sym_LT, ACTIONS 111), (sym_increment_operator, ACTIONS 113),
     (anon_sym_DOT_DOT_DOT, ACTIONS 167), (sym_minus_operator, ACTIONS 117),
     (anon_sym_BANG, ACTIONS 119), (anon_sym_TILDE, ACTIONS 121), (anon_sym_await, ACTIONS 410),
     (anon_sym_switch, ACTIONS 412), (anon_sym_if, ACTIONS 414), (anon_sym_for, ACTIONS 416),
     (sym_rethrow_builtin, ACTIONS 151), (anon_sym_new, ACTIONS 155),
     (sym_const_builtin, ACTIONS 478), (anon_sym_this, ACTIONS 159),
     (anon_sym_super, ACTIONS 161), (anon_sym_SLASH_SLASH, ACTIONS 3),
     (anon_sym_SLASH_STAR, ACTIONS 5), (anon_sym_SLASH_SLASH_SLASH, ACTIONS 7),
     (sym__block_comment, ACTIONS 9), (sym__documentation_block_comment, ACTIONS 11)]"

lemma row_ok_119: "table_row_ok 119 ts_parse_table_119"
  by (simp add: row_simps ts_parse_table_119_def)

definition ts_parse_table_120 :: table_row where
  "ts_parse_table_120 = [
     (sym__bool_literal, STATE 989), (sym__numeric_literal, STATE 989),
     (sym__literal, STATE 962), (sym_symbol_literal, STATE 989), (sym_true, STATE 900),
     (sym_false, STATE 900), (sym_string_literal, STATE 989),
     (sym__string_literal_double_quotes, STATE 627),
     (sym__string_literal_single_quotes, STATE 627),
     (sym__string_literal_double_quotes_multiple, STATE 627),
     (sym__string_literal_single_quotes_multiple, STATE 627),
     (sym__raw_string_literal_double_quotes, STATE 627),
     (sym__raw_string_literal_single_quotes, STATE 627),
     (sym__raw_string_literal_double_quotes_multiple, STATE 627),
     (sym__raw_string_literal_single_quotes_multiple, STATE 627), (sym_list_literal, STATE 989),
     (sym_set_or_map_literal, STATE 989), (sym_pair, STATE 2660), (sym__element, STATE 2838),
     (sym_null_literal, STATE 989), (sym_record_literal, STATE 989),
     (sym__record_literal_no_const, STATE 924), (sym__expression, STATE 2562),
     (sym__real_expression, STATE 660), (sym_throw_expression, STATE 908),
     (sym_rethrow_expression, STATE 908), (sym_assignment_expression, STATE 908),
     (sym_assignable_expression, STATE 1940), (sym_function_expression, STATE 962),
     (sym_if_null_expression, STATE 1477), (sym_conditional_expression, STATE 1477),
     (sym_logical_or_expression, STATE 1477), (sym_logical_and_expression, STATE 1477),
     (sym_equality_expression, STATE 1477), (sym_type_cast_expression, STATE 1477),
     (sym_type_test_expression, STATE 1477), (sym_relational_expression, STATE 1477),
     (sym_bitwise_or_expression, STATE 1477), (sym_bitwise_xor_expression, STATE 1477),
     (sym_bitwise_and_expression, STATE 1477), (sym_shift_expression, STATE 1477),
     (sym_additive_expression, STATE 1477), (sym_multiplicative_expression, STATE 1477),
     (sym__unary_expression, STATE 1121), (sym_unary_expression, STATE 1303),
     (sym__postfix_expression, STATE 1303), (sym_postfix_expression, STATE 1301),
     (sym_spread_element, STATE 2660), (sym_prefix_operator, STATE 431),
     (sym_negation_operator, STATE 1450), (sym__exclamation_operator, STATE 1451),
     (sym_tilde_operator, STATE 1385), (sym_await_expression, STATE 1302),
     (sym_new_expression, STATE 962), (sym_const_object_expression, STATE 962),
     (sym__primary, STATE 668), (sym_parenthesized_expression, STATE 962),
     (sym_constructor_invocation, STATE 643), (sym_constructor_tearoff, STATE 962),
     (sym_type_arguments, STATE 3200), (sym_switch_expression, STATE 962),
     (sym__parenthesized_pattern, STATE 3182), (sym_list_pattern, STATE 3182),
     (sym_map_pattern, STATE 3182), (sym_record_pattern, STATE 3182),
     (sym_object_pattern, STATE 3182), (sym__outer_pattern, STATE 3410),
     (sym_pattern_assignment, STATE 908), (sym_if_element, STATE 2660),
     (sym_for_element, STATE 2660), (sym_type_parameters, STATE 2932),
     (sym__type_name, STATE 2661), (sym__formal_parameter_part, STATE 2339),
     (sym_formal_parameter_list, STATE 2020), (sym__strict_formal_parameter_list, STATE 2016),
     (sym__new_builtin, STATE 2079), (sym_this, STATE 962), (sym_super, STATE 1337),
     (sym_comment, STATE 120), (sym_documentation_comment, STATE 120),
     (aux_sym_string_literal_repeat1, STATE 474), (sym_identifier, ACTIONS 494),
     (anon_sym_POUND, ACTIONS 73), (sym_decimal_integer_literal, ACTIONS 75),
     (sym_hex_integer_literal, ACTIONS 77), (sym_decimal_floating_point_literal, ACTIONS 75),
     (anon_sym_true, ACTIONS 79), (anon_sym_false, ACTIONS 81), (anon_sym_DQUOTE, ACTIONS 83),
     (anon_sym_SQUOTE, ACTIONS 85), (anon_sym_DQUOTE_DQUOTE_DQUOTE, ACTIONS 87),
     (anon_sym_SQUOTE_SQUOTE_SQUOTE, ACTIONS 89), (anon_sym_r_DQUOTE, ACTIONS 91),
     (anon_sym_r_SQUOTE, ACTIONS 93), (anon_sym_r_DQUOTE_DQUOTE_DQUOTE, ACTIONS 95),
     (anon_sym_r_SQUOTE_SQUOTE_SQUOTE, ACTIONS 97), (anon_sym_LBRACE, ACTIONS 442),
     (anon_sym_LBRACK, ACTIONS 103), (anon_sym_RBRACK, ACTIONS 574),
     (anon_sym_null, ACTIONS 105), (anon_sym_LPAREN, ACTIONS 498), (anon_sym_throw, ACTIONS 109),
     (anon_sym_LT, ACTIONS 111), (sym_increment_operator, ACTIONS 113),
     (anon_sym_DOT_DOT_DOT, ACTIONS 167), (sym_minus_operator, ACTIONS 117),
     (anon_sym_BANG, ACTIONS 119), (anon_sym_TILDE, ACTIONS 121), (anon_sym_await, ACTIONS 410),
     (anon_sym_switch, ACTIONS 412), (anon_sym_if, ACTIONS 414), (anon_sym_for, ACTIONS 416),
     (sym_rethrow_builtin, ACTIONS 151), (anon_sym_new, ACTIONS 155),
     (sym_const_builtin, ACTIONS 478), (anon_sym_this, ACTIONS 159),
     (anon_sym_super, ACTIONS 161), (anon_sym_SLASH_SLASH, ACTIONS 3),
     (anon_sym_SLASH_STAR, ACTIONS 5), (anon_sym_SLASH_SLASH_SLASH, ACTIONS 7),
     (sym__block_comment, ACTIONS 9), (sym__documentation_block_comment, ACTIONS 11)]"

lemma row_ok_120: "table_row_ok 120 ts_parse_table_120"
  by (simp add: row_simps ts_parse_table_120_def)

definition ts_parse_table_121 :: table_row where
  "ts_parse_table_121 = [
     (sym__bool_literal, STATE 989), (sym__numeric_literal, STATE 989),
     (sym__literal, STATE 962), (sym_symbol_literal, STATE 989), (sym_true, STATE 900),
     (sym_false, STATE 900), (sym_string_literal, STATE 989),
     (sym__string_literal_double_quotes, STATE 627),
     (sym__string_literal_single_quotes, STATE 627),
     (sym__string_literal_double_quotes_multiple, STATE 627),
     (sym__string_literal_single_quotes_multiple, STATE 627),
     (sym__raw_string_literal_double_quotes, STATE 627),
     (sym__raw_string_literal_single_quotes, STATE 627),
     (sym__raw_string_literal_double_quotes_multiple, STATE 627),
     (sym__raw_string_literal_single_quotes_multiple, STATE 627), (sym_list_literal, STATE 989),
     (sym_set_or_map_literal, STATE 989), (sym_pair, STATE 2660), (sym__element, STATE 2838),
     (sym_null_literal, STATE 989), (sym_record_literal, STATE 989),
     (sym__record_literal_no_const, STATE 924), (sym__expression, STATE 2562),
     (sym__real_expression, STATE 660), (sym_throw_expression, STATE 908),
     (sym_rethrow_expression, STATE 908), (sym_assignment_expression, STATE 908),
     (sym_assignable_expression, STATE 1940), (sym_function_expression, STATE 962),
     (sym_if_null_expression, STATE 1477), (sym_conditional_expression, STATE 1477),
     (sym_logical_or_expression, STATE 1477), (sym_logical_and_expression, STATE 1477),
     (sym_equality_expression, STATE 1477), (sym_type_cast_expression, STATE 1477),
     (sym_type_test_expression, STATE 1477), (sym_relational_expression, STATE 1477),
     (sym_bitwise_or_expression, STATE 1477), (sym_bitwise_xor_expression, STATE 1477),
     (sym_bitwise_and_expression, STATE 1477), (sym_shift_expression, STATE 1477),
     (sym_additive_expression, STATE 1477), (sym_multiplicative_expression, STATE 1477),
     (sym__unary_expression, STATE 1121), (sym_unary_expression, STATE 1303),
     (sym__postfix_expression, STATE 1303), (sym_postfix_expression, STATE 1301),
     (sym_spread_element, STATE 2660), (sym_prefix_operator, STATE 431),
     (sym_negation_operator, STATE 1450), (sym__exclamation_operator, STATE 1451),
     (sym_tilde_operator, STATE 1385), (sym_await_expression, STATE 1302),
     (sym_new_expression, STATE 962), (sym_const_object_expression, STATE 962),
     (sym__primary, STATE 668), (sym_parenthesized_expression, STATE 962),
     (sym_constructor_invocation, STATE 643), (sym_constructor_tearoff, STATE 962),
     (sym_type_arguments, STATE 3200), (sym_switch_expression, STATE 962),
     (sym__parenthesized_pattern, STATE 3182), (sym_list_pattern, STATE 3182),
     (sym_map_pattern, STATE 3182), (sym_record_pattern, STATE 3182),
     (sym_object_pattern, STATE 3182), (sym__outer_pattern, STATE 3410),
     (sym_pattern_assignment, STATE 908), (sym_if_element, STATE 2660),
     (sym_for_element, STATE 2660), (sym_type_parameters, STATE 2932),
     (sym__type_name, STATE 2661), (sym__formal_parameter_part, STATE 2339),
     (sym_formal_parameter_list, STATE 2020), (sym__strict_formal_parameter_list, STATE 2016),
     (sym__new_builtin, STATE 2079), (sym_this, STATE 962), (sym_super, STATE 1337),
     (sym_comment, STATE 121), (sym_documentation_comment, STATE 121),
     (aux_sym_string_literal_repeat1, STATE 474), (sym_identifier, ACTIONS 494),
     (anon_sym_POUND, ACTIONS 73), (sym_decimal_integer_literal, ACTIONS 75),
     (sym_hex_integer_literal, ACTIONS 77), (sym_decimal_floating_point_literal, ACTIONS 75),
     (anon_sym_true, ACTIONS 79), (anon_sym_false, ACTIONS 81), (anon_sym_DQUOTE, ACTIONS 83),
     (anon_sym_SQUOTE, ACTIONS 85), (anon_sym_DQUOTE_DQUOTE_DQUOTE, ACTIONS 87),
     (anon_sym_SQUOTE_SQUOTE_SQUOTE, ACTIONS 89), (anon_sym_r_DQUOTE, ACTIONS 91),
     (anon_sym_r_SQUOTE, ACTIONS 93), (anon_sym_r_DQUOTE_DQUOTE_DQUOTE, ACTIONS 95),
     (anon_sym_r_SQUOTE_SQUOTE_SQUOTE, ACTIONS 97), (anon_sym_LBRACE, ACTIONS 442),
     (anon_sym_LBRACK, ACTIONS 103), (anon_sym_RBRACK, ACTIONS 576),
     (anon_sym_null, ACTIONS 105), (anon_sym_LPAREN, ACTIONS 498), (anon_sym_throw, ACTIONS 109),
     (anon_sym_LT, ACTIONS 111), (sym_increment_operator, ACTIONS 113),
     (anon_sym_DOT_DOT_DOT, ACTIONS 167), (sym_minus_operator, ACTIONS 117),
     (anon_sym_BANG, ACTIONS 119), (anon_sym_TILDE, ACTIONS 121), (anon_sym_await, ACTIONS 410),
     (anon_sym_switch, ACTIONS 412), (anon_sym_if, ACTIONS 414), (anon_sym_for, ACTIONS 416),
     (sym_rethrow_builtin, ACTIONS 151), (anon_sym_new, ACTIONS 155),
     (sym_const_builtin, ACTIONS 478), (anon_sym_this, ACTIONS 159),
     (anon_sym_super, ACTIONS 161), (anon_sym_SLASH_SLASH, ACTIONS 3),
     (anon_sym_SLASH_STAR, ACTIONS 5), (anon_sym_SLASH_SLASH_SLASH, ACTIONS 7),
     (sym__block_comment, ACTIONS 9), (sym__documentation_block_comment, ACTIONS 11)]"

lemma row_ok_121: "table_row_ok 121 ts_parse_table_121"
  by (simp add: row_simps ts_parse_table_121_def)

definition ts_parse_table_122 :: table_row where
  "ts_parse_table_122 = [
     (sym__bool_literal, STATE 989), (sym__numeric_literal, STATE 989),
     (sym__literal, STATE 962), (sym_symbol_literal, STATE 989), (sym_true, STATE 900),
     (sym_false, STATE 900), (sym_string_literal, STATE 989),
     (sym__string_literal_double_quotes, STATE 627),
     (sym__string_literal_single_quotes, STATE 627),
     (sym__string_literal_double_quotes_multiple, STATE 627),
     (sym__string_literal_single_quotes_multiple, STATE 627),
     (sym__raw_string_literal_double_quotes, STATE 627),
     (sym__raw_string_literal_single_quotes, STATE 627),
     (sym__raw_string_literal_double_quotes_multiple, STATE 627),
     (sym__raw_string_literal_single_quotes_multiple, STATE 627), (sym_list_literal, STATE 989),
     (sym_set_or_map_literal, STATE 989), (sym_pair, STATE 2660), (sym__element, STATE 2838),
     (sym_null_literal, STATE 989), (sym_record_literal, STATE 989),
     (sym__record_literal_no_const, STATE 924), (sym__expression, STATE 2562),
     (sym__real_expression, STATE 660), (sym_throw_expression, STATE 908),
     (sym_rethrow_expression, STATE 908), (sym_assignment_expression, STATE 908),
     (sym_assignable_expression, STATE 1940), (sym_function_expression, STATE 962),
     (sym_if_null_expression, STATE 1477), (sym_conditional_expression, STATE 1477),
     (sym_logical_or_expression, STATE 1477), (sym_logical_and_expression, STATE 1477),
     (sym_equality_expression, STATE 1477), (sym_type_cast_expression, STATE 1477),
     (sym_type_test_expression, STATE 1477), (sym_relational_expression, STATE 1477),
     (sym_bitwise_or_expression, STATE 1477), (sym_bitwise_xor_expression, STATE 1477),
     (sym_bitwise_and_expression, STATE 1477), (sym_shift_expression, STATE 1477),
     (sym_additive_expression, STATE 1477), (sym_multiplicative_expression, STATE 1477),
     (sym__unary_expression, STATE 1121), (sym_unary_expression, STATE 1303),
     (sym__postfix_expression, STATE 1303), (sym_postfix_expression, STATE 1301),
     (sym_spread_element, STATE 2660), (sym_prefix_operator, STATE 431),
     (sym_negation_operator, STATE 1450), (sym__exclamation_operator, STATE 1451),
     (sym_tilde_operator, STATE 1385), (sym_await_expression, STATE 1302),
     (sym_new_expression, STATE 962), (sym_const_object_expression, STATE 962),
     (sym__primary, STATE 668), (sym_parenthesized_expression, STATE 962),
     (sym_constructor_invocation, STATE 643), (sym_constructor_tearoff, STATE 962),
     (sym_type_arguments, STATE 3200), (sym_switch_expression, STATE 962),
     (sym__parenthesized_pattern, STATE 3182), (sym_list_pattern, STATE 3182),
     (sym_map_pattern, STATE 3182), (sym_record_pattern, STATE 3182),
     (sym_object_pattern, STATE 3182), (sym__outer_pattern, STATE 3410),
     (sym_pattern_assignment, STATE 908), (sym_if_element, STATE 2660),
     (sym_for_element, STATE 2660), (sym_type_parameters, STATE 2932),
     (sym__type_name, STATE 2661), (sym__formal_parameter_part, STATE 2339),
     (sym_formal_parameter_list, STATE 2020), (sym__strict_formal_parameter_list, STATE 2016),
     (sym__new_builtin, STATE 2079), (sym_this, STATE 962), (sym_super, STATE 1337),
     (sym_comment, STATE 122), (sym_documentation_comment, STATE 122),
     (aux_sym_string_literal_repeat1, STATE 474), (sym_identifier, ACTIONS 494),
     (anon_sym_POUND, ACTIONS 73), (sym_decimal_integer_literal, ACTIONS 75),
     (sym_hex_integer_literal, ACTIONS 77), (sym_decimal_floating_point_literal, ACTIONS 75),
     (anon_sym_true, ACTIONS 79), (anon_sym_false, ACTIONS 81), (anon_sym_DQUOTE, ACTIONS 83),
     (anon_sym_SQUOTE, ACTIONS 85), (anon_sym_DQUOTE_DQUOTE_DQUOTE, ACTIONS 87),
     (anon_sym_SQUOTE_SQUOTE_SQUOTE, ACTIONS 89), (anon_sym_r_DQUOTE, ACTIONS 91),
     (anon_sym_r_SQUOTE, ACTIONS 93), (anon_sym_r_DQUOTE_DQUOTE_DQUOTE, ACTIONS 95),
     (anon_sym_r_SQUOTE_SQUOTE_SQUOTE, ACTIONS 97), (anon_sym_LBRACE, ACTIONS 442),
     (anon_sym_RBRACE, ACTIONS 578), (anon_sym_LBRACK, ACTIONS 103),
     (anon_sym_null, ACTIONS 105), (anon_sym_LPAREN, ACTIONS 498), (anon_sym_throw, ACTIONS 109),
     (anon_sym_LT, ACTIONS 111), (sym_increment_operator, ACTIONS 113),
     (anon_sym_DOT_DOT_DOT, ACTIONS 167), (sym_minus_operator, ACTIONS 117),
     (anon_sym_BANG, ACTIONS 119), (anon_sym_TILDE, ACTIONS 121), (anon_sym_await, ACTIONS 410),
     (anon_sym_switch, ACTIONS 412), (anon_sym_if, ACTIONS 414), (anon_sym_for, ACTIONS 416),
     (sym_rethrow_builtin, ACTIONS 151), (anon_sym_new, ACTIONS 155),
     (sym_const_builtin, ACTIONS 478), (anon_sym_this, ACTIONS 159),
     (anon_sym_super, ACTIONS 161), (anon_sym_SLASH_SLASH, ACTIONS 3),
     (anon_sym_SLASH_STAR, ACTIONS 5), (anon_sym_SLASH_SLASH_SLASH, ACTIONS 7),
     (sym__block_comment, ACTIONS 9), (sym__documentation_block_comment, ACTIONS 11)]"

lemma row_ok_122: "table_row_ok 122 ts_parse_table_122"
  by (simp add: row_simps ts_parse_table_122_def)

definition ts_parse_table_123 :: table_row where
  "ts_parse_table_123 = [
     (sym__bool_literal, STATE 989), (sym__numeric_literal, STATE 989),
     (sym__literal, STATE 962), (sym_symbol_literal, STATE 989), (sym_true, STATE 900),
     (sym_false, STATE 900), (sym_string_literal, STATE 989),
     (sym__string_literal_double_quotes, STATE 627),
     (sym__string_literal_single_quotes, STATE 627),
     (sym__string_literal_double_quotes_multiple, STATE 627),
     (sym__string_literal_single_quotes_multiple, STATE 627),
     (sym__raw_string_literal_double_quotes, STATE 627),
     (sym__raw_string_literal_single_quotes, STATE 627),
     (sym__raw_string_literal_double_quotes_multiple, STATE 627),
     (sym__raw_string_literal_single_quotes_multiple, STATE 627), (sym_list_literal, STATE 989),
     (sym_set_or_map_literal, STATE 989), (sym_pair, STATE 2660), (sym__element, STATE 2817),
     (sym_null_literal, STATE 989), (sym_record_literal, STATE 989),
     (sym__record_literal_no_const, STATE 924), (sym__expression, STATE 2562),
     (sym__real_expression, STATE 660), (sym_throw_expression, STATE 908),
     (sym_rethrow_expression, STATE 908), (sym_assignment_expression, STATE 908),
     (sym_assignable_expression, STATE 1940), (sym_function_expression, STATE 962),
     (sym_if_null_expression, STATE 1477), (sym_conditional_expression, STATE 1477),
     (sym_logical_or_expression, STATE 1477), (sym_logical_and_expression, STATE 1477),
     (sym_equality_expression, STATE 1477), (sym_type_cast_expression, STATE 1477),
     (sym_type_test_expression, STATE 1477), (sym_relational_expression, STATE 1477),
     (sym_bitwise_or_expression, STATE 1477), (sym_bitwise_xor_expression, STATE 1477),
     (sym_bitwise_and_expression, STATE 1477), (sym_shift_expression, STATE 1477),
     (sym_additive_expression, STATE 1477), (sym_multiplicative_expression, STATE 1477),
     (sym__unary_expression, STATE 1121), (sym_unary_expression, STATE 1303),
     (sym__postfix_expression, STATE 1303), (sym_postfix_expression, STATE 1301),
     (sym_spread_element, STATE 2660), (sym_prefix_operator, STATE 431),
     (sym_negation_operator, STATE 1450), (sym__exclamation_operator, STATE 1451),
     (sym_tilde_operator, STATE 1385), (sym_await_expression, STATE 1302),
     (sym_new_expression, STATE 962), (sym_const_object_expression, STATE 962),
     (sym__primary, STATE 668), (sym_parenthesized_expression, STATE 962),
     (sym_constructor_invocation, STATE 643), (sym_constructor_tearoff, STATE 962),
     (sym_type_arguments, STATE 3200), (sym_switch_expression, STATE 962),
     (sym__parenthesized_pattern, STATE 3182), (sym_list_pattern, STATE 3182),
     (sym_map_pattern, STATE 3182), (sym_record_pattern, STATE 3182),
     (sym_object_pattern, STATE 3182), (sym__outer_pattern, STATE 3410),
     (sym_pattern_assignment, STATE 908), (sym_if_element, STATE 2660),
     (sym_for_element, STATE 2660), (sym_type_parameters, STATE 2932),
     (sym__type_name, STATE 2661), (sym__formal_parameter_part, STATE 2339),
     (sym_formal_parameter_list, STATE 2020), (sym__strict_formal_parameter_list, STATE 2016),
     (sym__new_builtin, STATE 2079), (sym_this, STATE 962), (sym_super, STATE 1337),
     (sym_comment, STATE 123), (sym_documentation_comment, STATE 123),
     (aux_sym_string_literal_repeat1, STATE 474), (sym_identifier, ACTIONS 494),
     (anon_sym_POUND, ACTIONS 73), (sym_decimal_integer_literal, ACTIONS 75),
     (sym_hex_integer_literal, ACTIONS 77), (sym_decimal_floating_point_literal, ACTIONS 75),
     (anon_sym_true, ACTIONS 79), (anon_sym_false, ACTIONS 81), (anon_sym_DQUOTE, ACTIONS 83),
     (anon_sym_SQUOTE, ACTIONS 85), (anon_sym_DQUOTE_DQUOTE_DQUOTE, ACTIONS 87),
     (anon_sym_SQUOTE_SQUOTE_SQUOTE, ACTIONS 89), (anon_sym_r_DQUOTE, ACTIONS 91),
     (anon_sym_r_SQUOTE, ACTIONS 93), (anon_sym_r_DQUOTE_DQUOTE_DQUOTE, ACTIONS 95),
     (anon_sym_r_SQUOTE_SQUOTE_SQUOTE, ACTIONS 97), (anon_sym_LBRACE, ACTIONS 442),
     (anon_sym_RBRACE, ACTIONS 580), (anon_sym_LBRACK, ACTIONS 103),
     (anon_sym_null, ACTIONS 105), (anon_sym_LPAREN, ACTIONS 498), (anon_sym_throw, ACTIONS 109),
     (anon_sym_LT, ACTIONS 111), (sym_increment_operator, ACTIONS 113),
     (anon_sym_DOT_DOT_DOT, ACTIONS 167), (sym_minus_operator, ACTIONS 117),
     (anon_sym_BANG, ACTIONS 119), (anon_sym_TILDE, ACTIONS 121), (anon_sym_await, ACTIONS 410),
     (anon_sym_switch, ACTIONS 412), (anon_sym_if, ACTIONS 414), (anon_sym_for, ACTIONS 416),
     (sym_rethrow_builtin, ACTIONS 151), (anon_sym_new, ACTIONS 155),
     (sym_const_builtin, ACTIONS 478), (anon_sym_this, ACTIONS 159),
     (anon_sym_super, ACTIONS 161), (anon_sym_SLASH_SLASH, ACTIONS 3),
     (anon_sym_SLASH_STAR, ACTIONS 5), (anon_sym_SLASH_SLASH_SLASH, ACTIONS 7),
     (sym__block_comment, ACTIONS 9), (sym__documentation_block_comment, ACTIONS 11)]"

lemma row_ok_123: "table_row_ok 123 ts_parse_table_123"
  by (simp add: row_simps ts_parse_table_123_def)

definition ts_parse_table_124 :: table_row where
  "ts_parse_table_124 = [
     (sym__bool_literal, STATE 989), (sym__numeric_literal, STATE 989),
     (sym__literal, STATE 962), (sym_symbol_literal, STATE 989), (sym_true, STATE 900),
     (sym_false, STATE 900), (sym_string_literal, STATE 989),
     (sym__string_literal_double_quotes, STATE 627),
     (sym__string_literal_single_quotes, STATE 627),
     (sym__string_literal_double_quotes_multiple, STATE 627),
     (sym__string_literal_single_quotes_multiple, STATE 627),
     (sym__raw_string_literal_double_quotes, STATE 627),
     (sym__raw_string_literal_single_quotes, STATE 627),
     (sym__raw_string_literal_double_quotes_multiple, STATE 627),
     (sym__raw_string_literal_single_quotes_multiple, STATE 627), (sym_list_literal, STATE 989),
     (sym_set_or_map_literal, STATE 989), (sym_pair, STATE 2660), (sym__element, STATE 2838),
     (sym_null_literal, STATE 989), (sym_record_literal, STATE 989),
     (sym__record_literal_no_const, STATE 924), (sym__expression, STATE 2562),
     (sym__real_expression, STATE 660), (sym_throw_expression, STATE 908),
     (sym_rethrow_expression, STATE 908), (sym_assignment_expression, STATE 908),
     (sym_assignable_expression, STATE 1940), (sym_function_expression, STATE 962),
     (sym_if_null_expression, STATE 1477), (sym_conditional_expression, STATE 1477),
     (sym_logical_or_expression, STATE 1477), (sym_logical_and_expression, STATE 1477),
     (sym_equality_expression, STATE 1477), (sym_type_cast_expression, STATE 1477),
     (sym_type_test_expression, STATE 1477), (sym_relational_expression, STATE 1477),
     (sym_bitwise_or_expression, STATE 1477), (sym_bitwise_xor_expression, STATE 1477),
     (sym_bitwise_and_expression, STATE 1477), (sym_shift_expression, STATE 1477),
     (sym_additive_expression, STATE 1477), (sym_multiplicative_expression, STATE 1477),
     (sym__unary_expression, STATE 1121), (sym_unary_expression, STATE 1303),
     (sym__postfix_expression, STATE 1303), (sym_postfix_expression, STATE 1301),
     (sym_spread_element, STATE 2660), (sym_prefix_operator, STATE 431),
     (sym_negation_operator, STATE 1450), (sym__exclamation_operator, STATE 1451),
     (sym_tilde_operator, STATE 1385), (sym_await_expression, STATE 1302),
     (sym_new_expression, STATE 962), (sym_const_object_expression, STATE 962),
     (sym__primary, STATE 668), (sym_parenthesized_expression, STATE 962),
     (sym_constructor_invocation, STATE 643), (sym_constructor_tearoff, STATE 962),
     (sym_type_arguments, STATE 3200), (sym_switch_expression, STATE 962),
     (sym__parenthesized_pattern, STATE 3182), (sym_list_pattern, STATE 3182),
     (sym_map_pattern, STATE 3182), (sym_record_pattern, STATE 3182),
     (sym_object_pattern, STATE 3182), (sym__outer_pattern, STATE 3410),
     (sym_pattern_assignment, STATE 908), (sym_if_element, STATE 2660),
     (sym_for_element, STATE 2660), (sym_type_parameters, STATE 2932),
     (sym__type_name, STATE 2661), (sym__formal_parameter_part, STATE 2339),
     (sym_formal_parameter_list, STATE 2020), (sym__strict_formal_parameter_list, STATE 2016),
     (sym__new_builtin, STATE 2079), (sym_this, STATE 962), (sym_super, STATE 1337),
     (sym_comment, STATE 124), (sym_documentation_comment, STATE 124),
     (aux_sym_string_literal_repeat1, STATE 474), (sym_identifier, ACTIONS 494),
     (anon_sym_POUND, ACTIONS 73), (sym_decimal_integer_literal, ACTIONS 75),
     (sym_hex_integer_literal, ACTIONS 77), (sym_decimal_floating_point_literal, ACTIONS 75),
     (anon_sym_true, ACTIONS 79), (anon_sym_false, ACTIONS 81), (anon_sym_DQUOTE, ACTIONS 83),
     (anon_sym_SQUOTE, ACTIONS 85), (anon_sym_DQUOTE_DQUOTE_DQUOTE, ACTIONS 87),
     (anon_sym_SQUOTE_SQUOTE_SQUOTE, ACTIONS 89), (anon_sym_r_DQUOTE, ACTIONS 91),
     (anon_sym_r_SQUOTE, ACTIONS 93), (anon_sym_r_DQUOTE_DQUOTE_DQUOTE, ACTIONS 95),
     (anon_sym_r_SQUOTE_SQUOTE_SQUOTE, ACTIONS 97), (anon_sym_LBRACE, ACTIONS 442),
     (anon_sym_LBRACK, ACTIONS 103), (anon_sym_RBRACK, ACTIONS 582),
     (anon_sym_null, ACTIONS 105), (anon_sym_LPAREN, ACTIONS 498), (anon_sym_throw, ACTIONS 109),
     (anon_sym_LT, ACTIONS 111), (sym_increment_operator, ACTIONS 113),
     (anon_sym_DOT_DOT_DOT, ACTIONS 167), (sym_minus_operator, ACTIONS 117),
     (anon_sym_BANG, ACTIONS 119), (anon_sym_TILDE, ACTIONS 121), (anon_sym_await, ACTIONS 410),
     (anon_sym_switch, ACTIONS 412), (anon_sym_if, ACTIONS 414), (anon_sym_for, ACTIONS 416),
     (sym_rethrow_builtin, ACTIONS 151), (anon_sym_new, ACTIONS 155),
     (sym_const_builtin, ACTIONS 478), (anon_sym_this, ACTIONS 159),
     (anon_sym_super, ACTIONS 161), (anon_sym_SLASH_SLASH, ACTIONS 3),
     (anon_sym_SLASH_STAR, ACTIONS 5), (anon_sym_SLASH_SLASH_SLASH, ACTIONS 7),
     (sym__block_comment, ACTIONS 9), (sym__documentation_block_comment, ACTIONS 11)]"

lemma row_ok_124: "table_row_ok 124 ts_parse_table_124"
  by (simp add: row_simps ts_parse_table_124_def)

definition ts_parse_table_125 :: table_row where
  "ts_parse_table_125 = [
     (sym__bool_literal, STATE 989), (sym__numeric_literal, STATE 989),
     (sym__literal, STATE 962), (sym_symbol_literal, STATE 989), (sym_true, STATE 900),
     (sym_false, STATE 900), (sym_string_literal, STATE 989),
     (sym__string_literal_double_quotes, STATE 627),
     (sym__string_literal_single_quotes, STATE 627),
     (sym__string_literal_double_quotes_multiple, STATE 627),
     (sym__string_literal_single_quotes_multiple, STATE 627),
     (sym__raw_string_literal_double_quotes, STATE 627),
     (sym__raw_string_literal_single_quotes, STATE 627),
     (sym__raw_string_literal_double_quotes_multiple, STATE 627),
     (sym__raw_string_literal_single_quotes_multiple, STATE 627), (sym_list_literal, STATE 989),
     (sym_set_or_map_literal, STATE 989), (sym_pair, STATE 2660), (sym__element, STATE 2786),
     (sym_null_literal, STATE 989), (sym_record_literal, STATE 989),
     (sym__record_literal_no_const, STATE 924), (sym__expression, STATE 2562),
     (sym__real_expression, STATE 660), (sym_throw_expression, STATE 908),
     (sym_rethrow_expression, STATE 908), (sym_assignment_expression, STATE 908),
     (sym_assignable_expression, STATE 1940), (sym_function_expression, STATE 962),
     (sym_if_null_expression, STATE 1477), (sym_conditional_expression, STATE 1477),
     (sym_logical_or_expression, STATE 1477), (sym_logical_and_expression, STATE 1477),
     (sym_equality_expression, STATE 1477), (sym_type_cast_expression, STATE 1477),
     (sym_type_test_expression, STATE 1477), (sym_relational_expression, STATE 1477),
     (sym_bitwise_or_expression, STATE 1477), (sym_bitwise_xor_expression, STATE 1477),
     (sym_bitwise_and_expression, STATE 1477), (sym_shift_expression, STATE 1477),
     (sym_additive_expression, STATE 1477), (sym_multiplicative_expression, STATE 1477),
     (sym__unary_expression, STATE 1121), (sym_unary_expression, STATE 1303),
     (sym__postfix_expression, STATE 1303), (sym_postfix_expression, STATE 1301),
     (sym_spread_element, STATE 2660), (sym_prefix_operator, STATE 431),
     (sym_negation_operator, STATE 1450), (sym__exclamation_operator, STATE 1451),
     (sym_tilde_operator, STATE 1385), (sym_await_expression, STATE 1302),
     (sym_new_expression, STATE 962), (sym_const_object_expression, STATE 962),
     (sym__primary, STATE 668), (sym_parenthesized_expression, STATE 962),
     (sym_constructor_invocation, STATE 643), (sym_constructor_tearoff, STATE 962),
     (sym_type_arguments, STATE 3200), (sym_switch_expression, STATE 962),
     (sym__parenthesized_pattern, STATE 3182), (sym_list_pattern, STATE 3182),
     (sym_map_pattern, STATE 3182), (sym_record_pattern, STATE 3182),
     (sym_object_pattern, STATE 3182), (sym__outer_pattern, STATE 3410),
     (sym_pattern_assignment, STATE 908), (sym_if_element, STATE 2660),
     (sym_for_element, STATE 2660), (sym_type_parameters, STATE 2932),
     (sym__type_name, STATE 2661), (sym__formal_parameter_part, STATE 2339),
     (sym_formal_parameter_list, STATE 2020), (sym__strict_formal_parameter_list, STATE 2016),
     (sym__new_builtin, STATE 2079), (sym_this, STATE 962), (sym_super, STATE 1337),
     (sym_comment, STATE 125), (sym_documentation_comment, STATE 125),
     (aux_sym_string_literal_repeat1, STATE 474), (sym_identifier, ACTIONS 494),
     (anon_sym_POUND, ACTIONS 73), (sym_decimal_integer_literal, ACTIONS 75),
     (sym_hex_integer_literal, ACTIONS 77), (sym_decimal_floating_point_literal, ACTIONS 75),
     (anon_sym_true, ACTIONS 79), (anon_sym_false, ACTIONS 81), (anon_sym_DQUOTE, ACTIONS 83),
     (anon_sym_SQUOTE, ACTIONS 85), (anon_sym_DQUOTE_DQUOTE_DQUOTE, ACTIONS 87),
     (anon_sym_SQUOTE_SQUOTE_SQUOTE, ACTIONS 89), (anon_sym_r_DQUOTE, ACTIONS 91),
     (anon_sym_r_SQUOTE, ACTIONS 93), (anon_sym_r_DQUOTE_DQUOTE_DQUOTE, ACTIONS 95),
     (anon_sym_r_SQUOTE_SQUOTE_SQUOTE, ACTIONS 97), (anon_sym_LBRACE, ACTIONS 442),
     (anon_sym_LBRACK, ACTIONS 103), (anon_sym_RBRACK, ACTIONS 584),
     (anon_sym_null, ACTIONS 105), (anon_sym_LPAREN, ACTIONS 498), (anon_sym_throw, ACTIONS 109),
     (anon_sym_LT, ACTIONS 111), (sym_increment_operator, ACTIONS 113),
     (anon_sym_DOT_DOT_DOT, ACTIONS 167), (sym_minus_operator, ACTIONS 117),
     (anon_sym_BANG, ACTIONS 119), (anon_sym_TILDE, ACTIONS 121), (anon_sym_await, ACTIONS 410),
     (anon_sym_switch, ACTIONS 412), (anon_sym_if, ACTIONS 414), (anon_sym_for, ACTIONS 416),
     (sym_rethrow_builtin, ACTIONS 151), (anon_sym_new, ACTIONS 155),
     (sym_const_builtin, ACTIONS 478), (anon_sym_this, ACTIONS 159),
     (anon_sym_super, ACTIONS 161), (anon_sym_SLASH_SLASH, ACTIONS 3),
     (anon_sym_SLASH_STAR, ACTIONS 5), (anon_sym_SLASH_SLASH_SLASH, ACTIONS 7),
     (sym__block_comment, ACTIONS 9), (sym__documentation_block_comment, ACTIONS 11)]"

lemma row_ok_125: "table_row_ok 125 ts_parse_table_125"
  by (simp add: row_simps ts_parse_table_125_def)

definition ts_parse_table_126 :: table_row where
  "ts_parse_table_126 = [
     (sym__bool_literal, STATE 989), (sym__numeric_literal, STATE 989),
     (sym__literal, STATE 962), (sym_symbol_literal, STATE 989), (sym_true, STATE 900),
     (sym_false, STATE 900), (sym_string_literal, STATE 989),
     (sym__string_literal_double_quotes, STATE 627),
     (sym__string_literal_single_quotes, STATE 627),
     (sym__string_literal_double_quotes_multiple, STATE 627),
     (sym__string_literal_single_quotes_multiple, STATE 627),
     (sym__raw_string_literal_double_quotes, STATE 627),
     (sym__raw_string_literal_single_quotes, STATE 627),
     (sym__raw_string_literal_double_quotes_multiple, STATE 627),
     (sym__raw_string_literal_single_quotes_multiple, STATE 627), (sym_list_literal, STATE 989),
     (sym_set_or_map_literal, STATE 989), (sym_pair, STATE 2660), (sym__element, STATE 2838),
     (sym_null_literal, STATE 989), (sym_record_literal, STATE 989),
     (sym__record_literal_no_const, STATE 924), (sym__expression, STATE 2562),
     (sym__real_expression, STATE 660), (sym_throw_expression, STATE 908),
     (sym_rethrow_expression, STATE 908), (sym_assignment_expression, STATE 908),
     (sym_assignable_expression, STATE 1940), (sym_function_expression, STATE 962),
     (sym_if_null_expression, STATE 1477), (sym_conditional_expression, STATE 1477),
     (sym_logical_or_expression, STATE 1477), (sym_logical_and_expression, STATE 1477),
     (sym_equality_expression, STATE 1477), (sym_type_cast_expression, STATE 1477),
     (sym_type_test_expression, STATE 1477), (sym_relational_expression, STATE 1477),
     (sym_bitwise_or_expression, STATE 1477), (sym_bitwise_xor_expression, STATE 1477),
     (sym_bitwise_and_expression, STATE 1477), (sym_shift_expression, STATE 1477),
     (sym_additive_expression, STATE 1477), (sym_multiplicative_expression, STATE 1477),
     (sym__unary_expression, STATE 1121), (sym_unary_expression, STATE 1303),
     (sym__postfix_expression, STATE 1303), (sym_postfix_expression, STATE 1301),
     (sym_spread_element, STATE 2660), (sym_prefix_operator, STATE 431),
     (sym_negation_operator, STATE 1450), (sym__exclamation_operator, STATE 1451),
     (sym_tilde_operator, STATE 1385), (sym_await_expression, STATE 1302),
     (sym_new_expression, STATE 962), (sym_const_object_expression, STATE 962),
     (sym__primary, STATE 668), (sym_parenthesized_expression, STATE 962),
     (sym_constructor_invocation, STATE 643), (sym_constructor_tearoff, STATE 962),
     (sym_type_arguments, STATE 3200), (sym_switch_expression, STATE 962),
     (sym__parenthesized_pattern, STATE 3182), (sym_list_pattern, STATE 3182),
     (sym_map_pattern, STATE 3182), (sym_record_pattern, STATE 3182),
     (sym_object_pattern, STATE 3182), (sym__outer_pattern, STATE 3410),
     (sym_pattern_assignment, STATE 908), (sym_if_element, STATE 2660),
     (sym_for_element, STATE 2660), (sym_type_parameters, STATE 2932),
     (sym__type_name, STATE 2661), (sym__formal_parameter_part, STATE 2339),
     (sym_formal_parameter_list, STATE 2020), (sym__strict_formal_parameter_list, STATE 2016),
     (sym__new_builtin, STATE 2079), (sym_this, STATE 962), (sym_super, STATE 1337),
     (sym_comment, STATE 126), (sym_documentation_comment, STATE 126),
     (aux_sym_string_literal_repeat1, STATE 474), (sym_identifier, ACTIONS 494),
     (anon_sym_POUND, ACTIONS 73), (sym_decimal_integer_literal, ACTIONS 75),
     (sym_hex_integer_literal, ACTIONS 77), (sym_decimal_floating_point_literal, ACTIONS 75),
     (anon_sym_true, ACTIONS 79), (anon_sym_false, ACTIONS 81), (anon_sym_DQUOTE, ACTIONS 83),
     (anon_sym_SQUOTE, ACTIONS 85), (anon_sym_DQUOTE_DQUOTE_DQUOTE, ACTIONS 87),
     (anon_sym_SQUOTE_SQUOTE_SQUOTE, ACTIONS 89), (anon_sym_r_DQUOTE, ACTIONS 91),
     (anon_sym_r_SQUOTE, ACTIONS 93), (anon_sym_r_DQUOTE_DQUOTE_DQUOTE, ACTIONS 95),
     (anon_sym_r_SQUOTE_SQUOTE_SQUOTE, ACTIONS 97), (anon_sym_LBRACE, ACTIONS 442),
     (anon_sym_RBRACE, ACTIONS 586), (anon_sym_LBRACK, ACTIONS 103),
     (anon_sym_null, ACTIONS 105), (anon_sym_LPAREN, ACTIONS 498), (anon_sym_throw, ACTIONS 109),
     (anon_sym_LT, ACTIONS 111), (sym_increment_operator, ACTIONS 113),
     (anon_sym_DOT_DOT_DOT, ACTIONS 167), (sym_minus_operator, ACTIONS 117),
     (anon_sym_BANG, ACTIONS 119), (anon_sym_TILDE, ACTIONS 121), (anon_sym_await, ACTIONS 410),
     (anon_sym_switch, ACTIONS 412), (anon_sym_if, ACTIONS 414), (anon_sym_for, ACTIONS 416),
     (sym_rethrow_builtin, ACTIONS 151), (anon_sym_new, ACTIONS 155),
     (sym_const_builtin, ACTIONS 478), (anon_sym_this, ACTIONS 159),
     (anon_sym_super, ACTIONS 161), (anon_sym_SLASH_SLASH, ACTIONS 3),
     (anon_sym_SLASH_STAR, ACTIONS 5), (anon_sym_SLASH_SLASH_SLASH, ACTIONS 7),
     (sym__block_comment, ACTIONS 9), (sym__documentation_block_comment, ACTIONS 11)]"

lemma row_ok_126: "table_row_ok 126 ts_parse_table_126"
  by (simp add: row_simps ts_parse_table_126_def)

definition ts_parse_table_127 :: table_row where
  "ts_parse_table_127 = [
     (sym__bool_literal, STATE 989), (sym__numeric_literal, STATE 989),
     (sym__literal, STATE 962), (sym_symbol_literal, STATE 989), (sym_true, STATE 900),
     (sym_false, STATE 900), (sym_string_literal, STATE 989),
     (sym__string_literal_double_quotes, STATE 627),
     (sym__string_literal_single_quotes, STATE 627),
     (sym__string_literal_double_quotes_multiple, STATE 627),
     (sym__string_literal_single_quotes_multiple, STATE 627),
     (sym__raw_string_literal_double_quotes, STATE 627),
     (sym__raw_string_literal_single_quotes, STATE 627),
     (sym__raw_string_literal_double_quotes_multiple, STATE 627),
     (sym__raw_string_literal_single_quotes_multiple, STATE 627), (sym_list_literal, STATE 989),
     (sym_set_or_map_literal, STATE 989), (sym_pair, STATE 2660), (sym__element, STATE 2838),
     (sym_null_literal, STATE 989), (sym_record_literal, STATE 989),
     (sym__record_literal_no_const, STATE 924), (sym__expression, STATE 2562),
     (sym__real_expression, STATE 660), (sym_throw_expression, STATE 908),
     (sym_rethrow_expression, STATE 908), (sym_assignment_expression, STATE 908),
     (sym_assignable_expression, STATE 1940), (sym_function_expression, STATE 962),
     (sym_if_null_expression, STATE 1477), (sym_conditional_expression, STATE 1477),
     (sym_logical_or_expression, STATE 1477), (sym_logical_and_expression, STATE 1477),
     (sym_equality_expression, STATE 1477), (sym_type_cast_expression, STATE 1477),
     (sym_type_test_expression, STATE 1477), (sym_relational_expression, STATE 1477),
     (sym_bitwise_or_expression, STATE 1477), (sym_bitwise_xor_expression, STATE 1477),
     (sym_bitwise_and_expression, STATE 1477), (sym_shift_expression, STATE 1477),
     (sym_additive_expression, STATE 1477), (sym_multiplicative_expression, STATE 1477),
     (sym__unary_expression, STATE 1121), (sym_unary_expression, STATE 1303),
     (sym__postfix_expression, STATE 1303), (sym_postfix_expression, STATE 1301),
     (sym_spread_element, STATE 2660), (sym_prefix_operator, STATE 431),
     (sym_negation_operator, STATE 1450), (sym__exclamation_operator, STATE 1451),
     (sym_tilde_operator, STATE 1385), (sym_await_expression, STATE 1302),
     (sym_new_expression, STATE 962), (sym_const_object_expression, STATE 962),
     (sym__primary, STATE 668), (sym_parenthesized_expression, STATE 962),
     (sym_constructor_invocation, STATE 643), (sym_constructor_tearoff, STATE 962),
     (sym_type_arguments, STATE 3200), (sym_switch_expression, STATE 962),
     (sym__parenthesized_pattern, STATE 3182), (sym_list_pattern, STATE 3182),
     (sym_map_pattern, STATE 3182), (sym_record_pattern, STATE 3182),
     (sym_object_pattern, STATE 3182), (sym__outer_pattern, STATE 3410),
     (sym_pattern_assignment, STATE 908), (sym_if_element, STATE 2660),
     (sym_for_element, STATE 2660), (sym_type_parameters, STATE 2932),
     (sym__type_name, STATE 2661), (sym__formal_parameter_part, STATE 2339),
     (sym_formal_parameter_list, STATE 2020), (sym__strict_formal_parameter_list, STATE 2016),
     (sym__new_builtin, STATE 2079), (sym_this, STATE 962), (sym_super, STATE 1337),
     (sym_comment, STATE 127), (sym_documentation_comment, STATE 127),
     (aux_sym_string_literal_repeat1, STATE 474), (sym_identifier, ACTIONS 494),
     (anon_sym_POUND, ACTIONS 73), (sym_decimal_integer_literal, ACTIONS 75),
     (sym_hex_integer_literal, ACTIONS 77), (sym_decimal_floating_point_literal, ACTIONS 75),
     (anon_sym_true, ACTIONS 79), (anon_sym_false, ACTIONS 81), (anon_sym_DQUOTE, ACTIONS 83),
     (anon_sym_SQUOTE, ACTIONS 85), (anon_sym_DQUOTE_DQUOTE_DQUOTE, ACTIONS 87),
     (anon_sym_SQUOTE_SQUOTE_SQUOTE, ACTIONS 89), (anon_sym_r_DQUOTE, ACTIONS 91),
     (anon_sym_r_SQUOTE, ACTIONS 93), (anon_sym_r_DQUOTE_DQUOTE_DQUOTE, ACTIONS 95),
     (anon_sym_r_SQUOTE_SQUOTE_SQUOTE, ACTIONS 97), (anon_sym_LBRACE, ACTIONS 442),
     (anon_sym_LBRACK, ACTIONS 103), (anon_sym_RBRACK, ACTIONS 588),
     (anon_sym_null, ACTIONS 105), (anon_sym_LPAREN, ACTIONS 498), (anon_sym_throw, ACTIONS 109),
     (anon_sym_LT, ACTIONS 111), (sym_increment_operator, ACTIONS 113),
     (anon_sym_DOT_DOT_DOT, ACTIONS 167), (sym_minus_operator, ACTIONS 117),
     (anon_sym_BANG, ACTIONS 119), (anon_sym_TILDE, ACTIONS 121), (anon_sym_await, ACTIONS 410),
     (anon_sym_switch, ACTIONS 412), (anon_sym_if, ACTIONS 414), (anon_sym_for, ACTIONS 416),
     (sym_rethrow_builtin, ACTIONS 151), (anon_sym_new, ACTIONS 155),
     (sym_const_builtin, ACTIONS 478), (anon_sym_this, ACTIONS 159),
     (anon_sym_super, ACTIONS 161), (anon_sym_SLASH_SLASH, ACTIONS 3),
     (anon_sym_SLASH_STAR, ACTIONS 5), (anon_sym_SLASH_SLASH_SLASH, ACTIONS 7),
     (sym__block_comment, ACTIONS 9), (sym__documentation_block_comment, ACTIONS 11)]"

lemma row_ok_127: "table_row_ok 127 ts_parse_table_127"
  by (simp add: row_simps ts_parse_table_127_def)

definition ts_parse_table_128 :: table_row where
  "ts_parse_table_128 = [
     (sym__bool_literal, STATE 989), (sym__numeric_literal, STATE 989),
     (sym__literal, STATE 962), (sym_symbol_literal, STATE 989), (sym_true, STATE 900),
     (sym_false, STATE 900), (sym_string_literal, STATE 989),
     (sym__string_literal_double_quotes, STATE 627),
     (sym__string_literal_single_quotes, STATE 627),
     (sym__string_literal_double_quotes_multiple, STATE 627),
     (sym__string_literal_single_quotes_multiple, STATE 627),
     (sym__raw_string_literal_double_quotes, STATE 627),
     (sym__raw_string_literal_single_quotes, STATE 627),
     (sym__raw_string_literal_double_quotes_multiple, STATE 627),
     (sym__raw_string_literal_single_quotes_multiple, STATE 627), (sym_list_literal, STATE 989),
     (sym_set_or_map_literal, STATE 989), (sym_pair, STATE 2660), (sym__element, STATE 2838),
     (sym_null_literal, STATE 989), (sym_record_literal, STATE 989),
     (sym__record_literal_no_const, STATE 924), (sym__expression, STATE 2562),
     (sym__real_expression, STATE 660), (sym_throw_expression, STATE 908),
     (sym_rethrow_expression, STATE 908), (sym_assignment_expression, STATE 908),
     (sym_assignable_expression, STATE 1940), (sym_function_expression, STATE 962),
     (sym_if_null_expression, STATE 1477), (sym_conditional_expression, STATE 1477),
     (sym_logical_or_expression, STATE 1477), (sym_logical_and_expression, STATE 1477),
     (sym_equality_expression, STATE 1477), (sym_type_cast_expression, STATE 1477),
     (sym_type_test_expression, STATE 1477), (sym_relational_expression, STATE 1477),
     (sym_bitwise_or_expression, STATE 1477), (sym_bitwise_xor_expression, STATE 1477),
     (sym_bitwise_and_expression, STATE 1477), (sym_shift_expression, STATE 1477),
     (sym_additive_expression, STATE 1477), (sym_multiplicative_expression, STATE 1477),
     (sym__unary_expression, STATE 1121), (sym_unary_expression, STATE 1303),
     (sym__postfix_expression, STATE 1303), (sym_postfix_expression, STATE 1301),
     (sym_spread_element, STATE 2660), (sym_prefix_operator, STATE 431),
     (sym_negation_operator, STATE 1450), (sym__exclamation_operator, STATE 1451),
     (sym_tilde_operator, STATE 1385), (sym_await_expression, STATE 1302),
     (sym_new_expression, STATE 962), (sym_const_object_expression, STATE 962),
     (sym__primary, STATE 668), (sym_parenthesized_expression, STATE 962),
     (sym_constructor_invocation, STATE 643), (sym_constructor_tearoff, STATE 962),
     (sym_type_arguments, STATE 3200), (sym_switch_expression, STATE 962),
     (sym__parenthesized_pattern, STATE 3182), (sym_list_pattern, STATE 3182),
     (sym_map_pattern, STATE 3182), (sym_record_pattern, STATE 3182),
     (sym_object_pattern, STATE 3182), (sym__outer_pattern, STATE 3410),
     (sym_pattern_assignment, STATE 908), (sym_if_element, STATE 2660),
     (sym_for_element, STATE 2660), (sym_type_parameters, STATE 2932),
     (sym__type_name, STATE 2661), (sym__formal_parameter_part, STATE 2339),
     (sym_formal_parameter_list, STATE 2020), (sym__strict_formal_parameter_list, STATE 2016),
     (sym__new_builtin, STATE 2079), (sym_this, STATE 962), (sym_super, STATE 1337),
     (sym_comment, STATE 128), (sym_documentation_comment, STATE 128),
     (aux_sym_string_literal_repeat1, STATE 474), (sym_identifier, ACTIONS 494),
     (anon_sym_POUND, ACTIONS 73), (sym_decimal_integer_literal, ACTIONS 75),
     (sym_hex_integer_literal, ACTIONS 77), (sym_decimal_floating_point_literal, ACTIONS 75),
     (anon_sym_true, ACTIONS 79), (anon_sym_false, ACTIONS 81), (anon_sym_DQUOTE, ACTIONS 83),
     (anon_sym_SQUOTE, ACTIONS 85), (anon_sym_DQUOTE_DQUOTE_DQUOTE, ACTIONS 87),
     (anon_sym_SQUOTE_SQUOTE_SQUOTE, ACTIONS 89), (anon_sym_r_DQUOTE, ACTIONS 91),
     (anon_sym_r_SQUOTE, ACTIONS 93), (anon_sym_r_DQUOTE_DQUOTE_DQUOTE, ACTIONS 95),
     (anon_sym_r_SQUOTE_SQUOTE_SQUOTE, ACTIONS 97), (anon_sym_LBRACE, ACTIONS 442),
     (anon_sym_LBRACK, ACTIONS 103), (anon_sym_RBRACK, ACTIONS 590),
     (anon_sym_null, ACTIONS 105), (anon_sym_LPAREN, ACTIONS 498), (anon_sym_throw, ACTIONS 109),
     (anon_sym_LT, ACTIONS 111), (sym_increment_operator, ACTIONS 113),
     (anon_sym_DOT_DOT_DOT, ACTIONS 167), (sym_minus_operator, ACTIONS 117),
     (anon_sym_BANG, ACTIONS 119), (anon_sym_TILDE, ACTIONS 121), (anon_sym_await, ACTIONS 410),
     (anon_sym_switch, ACTIONS 412), (anon_sym_if, ACTIONS 414), (anon_sym_for, ACTIONS 416),
     (sym_rethrow_builtin, ACTIONS 151), (anon_sym_new, ACTIONS 155),
     (sym_const_builtin, ACTIONS 478), (anon_sym_this, ACTIONS 159),
     (anon_sym_super, ACTIONS 161), (anon_sym_SLASH_SLASH, ACTIONS 3),
     (anon_sym_SLASH_STAR, ACTIONS 5), (anon_sym_SLASH_SLASH_SLASH, ACTIONS 7),
     (sym__block_comment, ACTIONS 9), (sym__documentation_block_comment, ACTIONS 11)]"

lemma row_ok_128: "table_row_ok 128 ts_parse_table_128"
  by (simp add: row_simps ts_parse_table_128_def)

definition ts_parse_table_129 :: table_row where
  "ts_parse_table_129 = [
     (sym__bool_literal, STATE 989), (sym__numeric_literal, STATE 989),
     (sym__literal, STATE 962), (sym_symbol_literal, STATE 989), (sym_true, STATE 900),
     (sym_false, STATE 900), (sym_string_literal, STATE 989),
     (sym__string_literal_double_quotes, STATE 627),
     (sym__string_literal_single_quotes, STATE 627),
     (sym__string_literal_double_quotes_multiple, STATE 627),
     (sym__string_literal_single_quotes_multiple, STATE 627),
     (sym__raw_string_literal_double_quotes, STATE 627),
     (sym__raw_string_literal_single_quotes, STATE 627),
     (sym__raw_string_literal_double_quotes_multiple, STATE 627),
     (sym__raw_string_literal_single_quotes_multiple, STATE 627), (sym_list_literal, STATE 989),
     (sym_set_or_map_literal, STATE 989), (sym_pair, STATE 2660), (sym__element, STATE 2838),
     (sym_null_literal, STATE 989), (sym_record_literal, STATE 989),
     (sym__record_literal_no_const, STATE 924), (sym__expression, STATE 2562),
     (sym__real_expression, STATE 660), (sym_throw_expression, STATE 908),
     (sym_rethrow_expression, STATE 908), (sym_assignment_expression, STATE 908),
     (sym_assignable_expression, STATE 1940), (sym_function_expression, STATE 962),
     (sym_if_null_expression, STATE 1477), (sym_conditional_expression, STATE 1477),
     (sym_logical_or_expression, STATE 1477), (sym_logical_and_expression, STATE 1477),
     (sym_equality_expression, STATE 1477), (sym_type_cast_expression, STATE 1477),
     (sym_type_test_expression, STATE 1477), (sym_relational_expression, STATE 1477),
     (sym_bitwise_or_expression, STATE 1477), (sym_bitwise_xor_expression, STATE 1477),
     (sym_bitwise_and_expression, STATE 1477), (sym_shift_expression, STATE 1477),
     (sym_additive_expression, STATE 1477), (sym_multiplicative_expression, STATE 1477),
     (sym__unary_expression, STATE 1121), (sym_unary_expression, STATE 1303),
     (sym__postfix_expression, STATE 1303), (sym_postfix_expression, STATE 1301),
     (sym_spread_element, STATE 2660), (sym_prefix_operator, STATE 431),
     (sym_negation_operator, STATE 1450), (sym__exclamation_operator, STATE 1451),
     (sym_tilde_operator, STATE 1385), (sym_await_expression, STATE 1302),
     (sym_new_expression, STATE 962), (sym_const_object_expression, STATE 962),
     (sym__primary, STATE 668), (sym_parenthesized_expression, STATE 962),
     (sym_constructor_invocation, STATE 643), (sym_constructor_tearoff, STATE 962),
     (sym_type_arguments, STATE 3200), (sym_switch_expression, STATE 962),
     (sym__parenthesized_pattern, STATE 3182), (sym_list_pattern, STATE 3182),
     (sym_map_pattern, STATE 3182), (sym_record_pattern, STATE 3182),
     (sym_object_pattern, STATE 3182), (sym__outer_pattern, STATE 3410),
     (sym_pattern_assignment, STATE 908), (sym_if_element, STATE 2660),
     (sym_for_element, STATE 2660), (sym_type_parameters, STATE 2932),
     (sym__type_name, STATE 2661), (sym__formal_parameter_part, STATE 2339),
     (sym_formal_parameter_list, STATE 2020), (sym__strict_formal_parameter_list, STATE 2016),
     (sym__new_builtin, STATE 2079), (sym_this, STATE 962), (sym_super, STATE 1337),
     (sym_comment, STATE 129), (sym_documentation_comment, STATE 129),
     (aux_sym_string_literal_repeat1, STATE 474), (sym_identifier, ACTIONS 494),
     (anon_sym_POUND, ACTIONS 73), (sym_decimal_integer_literal, ACTIONS 75),
     (sym_hex_integer_literal, ACTIONS 77), (sym_decimal_floating_point_literal, ACTIONS 75),
     (anon_sym_true, ACTIONS 79), (anon_sym_false, ACTIONS 81), (anon_sym_DQUOTE, ACTIONS 83),
     (anon_sym_SQUOTE, ACTIONS 85), (anon_sym_DQUOTE_DQUOTE_DQUOTE, ACTIONS 87),
     (anon_sym_SQUOTE_SQUOTE_SQUOTE, ACTIONS 89), (anon_sym_r_DQUOTE, ACTIONS 91),
     (anon_sym_r_SQUOTE, ACTIONS 93), (anon_sym_r_DQUOTE_DQUOTE_DQUOTE, ACTIONS 95),
     (anon_sym_r_SQUOTE_SQUOTE_SQUOTE, ACTIONS 97), (anon_sym_LBRACE, ACTIONS 442),
     (anon_sym_RBRACE, ACTIONS 592), (anon_sym_LBRACK, ACTIONS 103),
     (anon_sym_null, ACTIONS 105), (anon_sym_LPAREN, ACTIONS 498), (anon_sym_throw, ACTIONS 109),
     (anon_sym_LT, ACTIONS 111), (sym_increment_operator, ACTIONS 113),
     (anon_sym_DOT_DOT_DOT, ACTIONS 167), (sym_minus_operator, ACTIONS 117),
     (anon_sym_BANG, ACTIONS 119), (anon_sym_TILDE, ACTIONS 121), (anon_sym_await, ACTIONS 410),
     (anon_sym_switch, ACTIONS 412), (anon_sym_if, ACTIONS 414), (anon_sym_for, ACTIONS 416),
     (sym_rethrow_builtin, ACTIONS 151), (anon_sym_new, ACTIONS 155),
     (sym_const_builtin, ACTIONS 478), (anon_sym_this, ACTIONS 159),
     (anon_sym_super, ACTIONS 161), (anon_sym_SLASH_SLASH, ACTIONS 3),
     (anon_sym_SLASH_STAR, ACTIONS 5), (anon_sym_SLASH_SLASH_SLASH, ACTIONS 7),
     (sym__block_comment, ACTIONS 9), (sym__documentation_block_comment, ACTIONS 11)]"

lemma row_ok_129: "table_row_ok 129 ts_parse_table_129"
  by (simp add: row_simps ts_parse_table_129_def)

definition ts_parse_table_130 :: table_row where
  "ts_parse_table_130 = [
     (sym__bool_literal, STATE 989), (sym__numeric_literal, STATE 989),
     (sym__literal, STATE 962), (sym_symbol_literal, STATE 989), (sym_true, STATE 900),
     (sym_false, STATE 900), (sym_string_literal, STATE 989),
     (sym__string_literal_double_quotes, STATE 627),
     (sym__string_literal_single_quotes, STATE 627),
     (sym__string_literal_double_quotes_multiple, STATE 627),
     (sym__string_literal_single_quotes_multiple, STATE 627),
     (sym__raw_string_literal_double_quotes, STATE 627),
     (sym__raw_string_literal_single_quotes, STATE 627),
     (sym__raw_string_literal_double_quotes_multiple, STATE 627),
     (sym__raw_string_literal_single_quotes_multiple, STATE 627), (sym_list_literal, STATE 989),
     (sym_set_or_map_literal, STATE 989), (sym_pair, STATE 2660), (sym__element, STATE 2838),
     (sym_null_literal, STATE 989), (sym_record_literal, STATE 989),
     (sym__record_literal_no_const, STATE 924), (sym__expression, STATE 2562),
     (sym__real_expression, STATE 660), (sym_throw_expression, STATE 908),
     (sym_rethrow_expression, STATE 908), (sym_assignment_expression, STATE 908),
     (sym_assignable_expression, STATE 1940), (sym_function_expression, STATE 962),
     (sym_if_null_expression, STATE 1477), (sym_conditional_expression, STATE 1477),
     (sym_logical_or_expression, STATE 1477), (sym_logical_and_expression, STATE 1477),
     (sym_equality_expression, STATE 1477), (sym_type_cast_expression, STATE 1477),
     (sym_type_test_expression, STATE 1477), (sym_relational_expression, STATE 1477),
     (sym_bitwise_or_expression, STATE 1477), (sym_bitwise_xor_expression, STATE 1477),
     (sym_bitwise_and_expression, STATE 1477), (sym_shift_expression, STATE 1477),
     (sym_additive_expression, STATE 1477), (sym_multiplicative_expression, STATE 1477),
     (sym__unary_expression, STATE 1121), (sym_unary_expression, STATE 1303),
     (sym__postfix_expression, STATE 1303), (sym_postfix_expression, STATE 1301),
     (sym_spread_element, STATE 2660), (sym_prefix_operator, STATE 431),
     (sym_negation_operator, STATE 1450), (sym__exclamation_operator, STATE 1451),
     (sym_tilde_operator, STATE 1385), (sym_await_expression, STATE 1302),
     (sym_new_expression, STATE 962), (sym_const_object_expression, STATE 962),
     (sym__primary, STATE 668), (sym_parenthesized_expression, STATE 962),
     (sym_constructor_invocation, STATE 643), (sym_constructor_tearoff, STATE 962),
     (sym_type_arguments, STATE 3200), (sym_switch_expression, STATE 962),
     (sym__parenthesized_pattern, STATE 3182), (sym_list_pattern, STATE 3182),
     (sym_map_pattern, STATE 3182), (sym_record_pattern, STATE 3182),
     (sym_object_pattern, STATE 3182), (sym__outer_pattern, STATE 3410),
     (sym_pattern_assignment, STATE 908), (sym_if_element, STATE 2660),
     (sym_for_element, STATE 2660), (sym_type_parameters, STATE 2932),
     (sym__type_name, STATE 2661), (sym__formal_parameter_part, STATE 2339),
     (sym_formal_parameter_list, STATE 2020), (sym__strict_formal_parameter_list, STATE 2016),
     (sym__new_builtin, STATE 2079), (sym_this, STATE 962), (sym_super, STATE 1337),
     (sym_comment, STATE 130), (sym_documentation_comment, STATE 130),
     (aux_sym_string_literal_repeat1, STATE 474), (sym_identifier, ACTIONS 494),
     (anon_sym_POUND, ACTIONS 73), (sym_decimal_integer_literal, ACTIONS 75),
     (sym_hex_integer_literal, ACTIONS 77), (sym_decimal_floating_point_literal, ACTIONS 75),
     (anon_sym_true, ACTIONS 79), (anon_sym_false, ACTIONS 81), (anon_sym_DQUOTE, ACTIONS 83),
     (anon_sym_SQUOTE, ACTIONS 85), (anon_sym_DQUOTE_DQUOTE_DQUOTE, ACTIONS 87),
     (anon_sym_SQUOTE_SQUOTE_SQUOTE, ACTIONS 89), (anon_sym_r_DQUOTE, ACTIONS 91),
     (anon_sym_r_SQUOTE, ACTIONS 93), (anon_sym_r_DQUOTE_DQUOTE_DQUOTE, ACTIONS 95),
     (anon_sym_r_SQUOTE_SQUOTE_SQUOTE, ACTIONS 97), (anon_sym_LBRACE, ACTIONS 442),
     (anon_sym_RBRACE, ACTIONS 594), (anon_sym_LBRACK, ACTIONS 103),
     (anon_sym_null, ACTIONS 105), (anon_sym_LPAREN, ACTIONS 498), (anon_sym_throw, ACTIONS 109),
     (anon_sym_LT, ACTIONS 111), (sym_increment_operator, ACTIONS 113),
     (anon_sym_DOT_DOT_DOT, ACTIONS 167), (sym_minus_operator, ACTIONS 117),
     (anon_sym_BANG, ACTIONS 119), (anon_sym_TILDE, ACTIONS 121), (anon_sym_await, ACTIONS 410),
     (anon_sym_switch, ACTIONS 412), (anon_sym_if, ACTIONS 414), (anon_sym_for, ACTIONS 416),
     (sym_rethrow_builtin, ACTIONS 151), (anon_sym_new, ACTIONS 155),
     (sym_const_builtin, ACTIONS 478), (anon_sym_this, ACTIONS 159),
     (anon_sym_super, ACTIONS 161), (anon_sym_SLASH_SLASH, ACTIONS 3),
     (anon_sym_SLASH_STAR, ACTIONS 5), (anon_sym_SLASH_SLASH_SLASH, ACTIONS 7),
     (sym__block_comment, ACTIONS 9), (sym__documentation_block_comment, ACTIONS 11)]"

lemma row_ok_130: "table_row_ok 130 ts_parse_table_130"
  by (simp add: row_simps ts_parse_table_130_def)

definition ts_parse_table_131 :: table_row where
  "ts_parse_table_131 = [
     (sym__bool_literal, STATE 989), (sym__numeric_literal, STATE 989),
     (sym__literal, STATE 962), (sym_symbol_literal, STATE 989), (sym_true, STATE 900),
     (sym_false, STATE 900), (sym_string_literal, STATE 989),
     (sym__string_literal_double_quotes, STATE 627),
     (sym__string_literal_single_quotes, STATE 627),
     (sym__string_literal_double_quotes_multiple, STATE 627),
     (sym__string_literal_single_quotes_multiple, STATE 627),
     (sym__raw_string_literal_double_quotes, STATE 627),
     (sym__raw_string_literal_single_quotes, STATE 627),
     (sym__raw_string_literal_double_quotes_multiple, STATE 627),
     (sym__raw_string_literal_single_quotes_multiple, STATE 627), (sym_list_literal, STATE 989),
     (sym_set_or_map_literal, STATE 989), (sym_pair, STATE 2660), (sym__element, STATE 2838),
     (sym_null_literal, STATE 989), (sym_record_literal, STATE 989),
     (sym__record_literal_no_const, STATE 924), (sym__expression, STATE 2562),
     (sym__real_expression, STATE 660), (sym_throw_expression, STATE 908),
     (sym_rethrow_expression, STATE 908), (sym_assignment_expression, STATE 908),
     (sym_assignable_expression, STATE 1940), (sym_function_expression, STATE 962),
     (sym_if_null_expression, STATE 1477), (sym_conditional_expression, STATE 1477),
     (sym_logical_or_expression, STATE 1477), (sym_logical_and_expression, STATE 1477),
     (sym_equality_expression, STATE 1477), (sym_type_cast_expression, STATE 1477),
     (sym_type_test_expression, STATE 1477), (sym_relational_expression, STATE 1477),
     (sym_bitwise_or_expression, STATE 1477), (sym_bitwise_xor_expression, STATE 1477),
     (sym_bitwise_and_expression, STATE 1477), (sym_shift_expression, STATE 1477),
     (sym_additive_expression, STATE 1477), (sym_multiplicative_expression, STATE 1477),
     (sym__unary_expression, STATE 1121), (sym_unary_expression, STATE 1303),
     (sym__postfix_expression, STATE 1303), (sym_postfix_expression, STATE 1301),
     (sym_spread_element, STATE 2660), (sym_prefix_operator, STATE 431),
     (sym_negation_operator, STATE 1450), (sym__exclamation_operator, STATE 1451),
     (sym_tilde_operator, STATE 1385), (sym_await_expression, STATE 1302),
     (sym_new_expression, STATE 962), (sym_const_object_expression, STATE 962),
     (sym__primary, STATE 668), (sym_parenthesized_expression, STATE 962),
     (sym_constructor_invocation, STATE 643), (sym_constructor_tearoff, STATE 962),
     (sym_type_arguments, STATE 3200), (sym_switch_expression, STATE 962),
     (sym__parenthesized_pattern, STATE 3182), (sym_list_pattern, STATE 3182),
     (sym_map_pattern, STATE 3182), (sym_record_pattern, STATE 3182),
     (sym_object_pattern, STATE 3182), (sym__outer_pattern, STATE 3410),
     (sym_pattern_assignment, STATE 908), (sym_if_element, STATE 2660),
     (sym_for_element, STATE 2660), (sym_type_parameters, STATE 2932),
     (sym__type_name, STATE 2661), (sym__formal_parameter_part, STATE 2339),
     (sym_formal_parameter_list, STATE 2020), (sym__strict_formal_parameter_list, STATE 2016),
     (sym__new_builtin, STATE 2079), (sym_this, STATE 962), (sym_super, STATE 1337),
     (sym_comment, STATE 131), (sym_documentation_comment, STATE 131),
     (aux_sym_string_literal_repeat1, STATE 474), (sym_identifier, ACTIONS 494),
     (anon_sym_POUND, ACTIONS 73), (sym_decimal_integer_literal, ACTIONS 75),
     (sym_hex_integer_literal, ACTIONS 77), (sym_decimal_floating_point_literal, ACTIONS 75),
     (anon_sym_true, ACTIONS 79), (anon_sym_false, ACTIONS 81), (anon_sym_DQUOTE, ACTIONS 83),
     (anon_sym_SQUOTE, ACTIONS 85), (anon_sym_DQUOTE_DQUOTE_DQUOTE, ACTIONS 87),
     (anon_sym_SQUOTE_SQUOTE_SQUOTE, ACTIONS 89), (anon_sym_r_DQUOTE, ACTIONS 91),
     (anon_sym_r_SQUOTE, ACTIONS 93), (anon_sym_r_DQUOTE_DQUOTE_DQUOTE, ACTIONS 95),
     (anon_sym_r_SQUOTE_SQUOTE_SQUOTE, ACTIONS 97), (anon_sym_LBRACE, ACTIONS 442),
     (anon_sym_RBRACE, ACTIONS 596), (anon_sym_LBRACK, ACTIONS 103),
     (anon_sym_null, ACTIONS 105), (anon_sym_LPAREN, ACTIONS 498), (anon_sym_throw, ACTIONS 109),
     (anon_sym_LT, ACTIONS 111), (sym_increment_operator, ACTIONS 113),
     (anon_sym_DOT_DOT_DOT, ACTIONS 167), (sym_minus_operator, ACTIONS 117),
     (anon_sym_BANG, ACTIONS 119), (anon_sym_TILDE, ACTIONS 121), (anon_sym_await, ACTIONS 410),
     (anon_sym_switch, ACTIONS 412), (anon_sym_if, ACTIONS 414), (anon_sym_for, ACTIONS 416),
     (sym_rethrow_builtin, ACTIONS 151), (anon_sym_new, ACTIONS 155),
     (sym_const_builtin, ACTIONS 478), (anon_sym_this, ACTIONS 159),
     (anon_sym_super, ACTIONS 161), (anon_sym_SLASH_SLASH, ACTIONS 3),
     (anon_sym_SLASH_STAR, ACTIONS 5), (anon_sym_SLASH_SLASH_SLASH, ACTIONS 7),
     (sym__block_comment, ACTIONS 9), (sym__documentation_block_comment, ACTIONS 11)]"

lemma row_ok_131: "table_row_ok 131 ts_parse_table_131"
  by (simp add: row_simps ts_parse_table_131_def)

definition ts_parse_table_132 :: table_row where
  "ts_parse_table_132 = [
     (sym__bool_literal, STATE 989), (sym__numeric_literal, STATE 989),
     (sym__literal, STATE 962), (sym_symbol_literal, STATE 989), (sym_true, STATE 900),
     (sym_false, STATE 900), (sym_string_literal, STATE 989),
     (sym__string_literal_double_quotes, STATE 627),
     (sym__string_literal_single_quotes, STATE 627),
     (sym__string_literal_double_quotes_multiple, STATE 627),
     (sym__string_literal_single_quotes_multiple, STATE 627),
     (sym__raw_string_literal_double_quotes, STATE 627),
     (sym__raw_string_literal_single_quotes, STATE 627),
     (sym__raw_string_literal_double_quotes_multiple, STATE 627),
     (sym__raw_string_literal_single_quotes_multiple, STATE 627), (sym_list_literal, STATE 989),
     (sym_set_or_map_literal, STATE 989), (sym_pair, STATE 2660), (sym__element, STATE 2838),
     (sym_null_literal, STATE 989), (sym_record_literal, STATE 989),
     (sym__record_literal_no_const, STATE 924), (sym__expression, STATE 2562),
     (sym__real_expression, STATE 660), (sym_throw_expression, STATE 908),
     (sym_rethrow_expression, STATE 908), (sym_assignment_expression, STATE 908),
     (sym_assignable_expression, STATE 1940), (sym_function_expression, STATE 962),
     (sym_if_null_expression, STATE 1477), (sym_conditional_expression, STATE 1477),
     (sym_logical_or_expression, STATE 1477), (sym_logical_and_expression, STATE 1477),
     (sym_equality_expression, STATE 1477), (sym_type_cast_expression, STATE 1477),
     (sym_type_test_expression, STATE 1477), (sym_relational_expression, STATE 1477),
     (sym_bitwise_or_expression, STATE 1477), (sym_bitwise_xor_expression, STATE 1477),
     (sym_bitwise_and_expression, STATE 1477), (sym_shift_expression, STATE 1477),
     (sym_additive_expression, STATE 1477), (sym_multiplicative_expression, STATE 1477),
     (sym__unary_expression, STATE 1121), (sym_unary_expression, STATE 1303),
     (sym__postfix_expression, STATE 1303), (sym_postfix_expression, STATE 1301),
     (sym_spread_element, STATE 2660), (sym_prefix_operator, STATE 431),
     (sym_negation_operator, STATE 1450), (sym__exclamation_operator, STATE 1451),
     (sym_tilde_operator, STATE 1385), (sym_await_expression, STATE 1302),
     (sym_new_expression, STATE 962), (sym_const_object_expression, STATE 962),
     (sym__primary, STATE 668), (sym_parenthesized_expression, STATE 962),
     (sym_constructor_invocation, STATE 643), (sym_constructor_tearoff, STATE 962),
     (sym_type_arguments, STATE 3200), (sym_switch_expression, STATE 962),
     (sym__parenthesized_pattern, STATE 3182), (sym_list_pattern, STATE 3182),
     (sym_map_pattern, STATE 3182), (sym_record_pattern, STATE 3182),
     (sym_object_pattern, STATE 3182), (sym__outer_pattern, STATE 3410),
     (sym_pattern_assignment, STATE 908), (sym_if_element, STATE 2660),
     (sym_for_element, STATE 2660), (sym_type_parameters, STATE 2932),
     (sym__type_name, STATE 2661), (sym__formal_parameter_part, STATE 2339),
     (sym_formal_parameter_list, STATE 2020), (sym__strict_formal_parameter_list, STATE 2016),
     (sym__new_builtin, STATE 2079), (sym_this, STATE 962), (sym_super, STATE 1337),
     (sym_comment, STATE 132), (sym_documentation_comment, STATE 132),
     (aux_sym_string_literal_repeat1, STATE 474), (sym_identifier, ACTIONS 494),
     (anon_sym_POUND, ACTIONS 73), (sym_decimal_integer_literal, ACTIONS 75),
     (sym_hex_integer_literal, ACTIONS 77), (sym_decimal_floating_point_literal, ACTIONS 75),
     (anon_sym_true, ACTIONS 79), (anon_sym_false, ACTIONS 81), (anon_sym_DQUOTE, ACTIONS 83),
     (anon_sym_SQUOTE, ACTIONS 85), (anon_sym_DQUOTE_DQUOTE_DQUOTE, ACTIONS 87),
     (anon_sym_SQUOTE_SQUOTE_SQUOTE, ACTIONS 89), (anon_sym_r_DQUOTE, ACTIONS 91),
     (anon_sym_r_SQUOTE, ACTIONS 93), (anon_sym_r_DQUOTE_DQUOTE_DQUOTE, ACTIONS 95),
     (anon_sym_r_SQUOTE_SQUOTE_SQUOTE, ACTIONS 97), (anon_sym_LBRACE, ACTIONS 442),
     (anon_sym_LBRACK, ACTIONS 103), (anon_sym_RBRACK, ACTIONS 598),
     (anon_sym_null, ACTIONS 105), (anon_sym_LPAREN, ACTIONS 498), (anon_sym_throw, ACTIONS 109),
     (anon_sym_LT, ACTIONS 111), (sym_increment_operator, ACTIONS 113),
     (anon_sym_DOT_DOT_DOT, ACTIONS 167), (sym_minus_operator, ACTIONS 117),
     (anon_sym_BANG, ACTIONS 119), (anon_sym_TILDE, ACTIONS 121), (anon_sym_await, ACTIONS 410),
     (anon_sym_switch, ACTIONS 412), (anon_sym_if, ACTIONS 414), (anon_sym_for, ACTIONS 416),
     (sym_rethrow_builtin, ACTIONS 151), (anon_sym_new, ACTIONS 155),
     (sym_const_builtin, ACTIONS 478), (anon_sym_this, ACTIONS 159),
     (anon_sym_super, ACTIONS 161), (anon_sym_SLASH_SLASH, ACTIONS 3),
     (anon_sym_SLASH_STAR, ACTIONS 5), (anon_sym_SLASH_SLASH_SLASH, ACTIONS 7),
     (sym__block_comment, ACTIONS 9), (sym__documentation_block_comment, ACTIONS 11)]"

lemma row_ok_132: "table_row_ok 132 ts_parse_table_132"
  by (simp add: row_simps ts_parse_table_132_def)

definition ts_parse_table_133 :: table_row where
  "ts_parse_table_133 = [
     (sym__bool_literal, STATE 989), (sym__numeric_literal, STATE 989),
     (sym__literal, STATE 962), (sym_symbol_literal, STATE 989), (sym_true, STATE 900),
     (sym_false, STATE 900), (sym_string_literal, STATE 989),
     (sym__string_literal_double_quotes, STATE 627),
     (sym__string_literal_single_quotes, STATE 627),
     (sym__string_literal_double_quotes_multiple, STATE 627),
     (sym__string_literal_single_quotes_multiple, STATE 627),
     (sym__raw_string_literal_double_quotes, STATE 627),
     (sym__raw_string_literal_single_quotes, STATE 627),
     (sym__raw_string_literal_double_quotes_multiple, STATE 627),
     (sym__raw_string_literal_single_quotes_multiple, STATE 627), (sym_list_literal, STATE 989),
     (sym_set_or_map_literal, STATE 989), (sym_pair, STATE 2660), (sym__element, STATE 2838),
     (sym_null_literal, STATE 989), (sym_record_literal, STATE 989),
     (sym__record_literal_no_const, STATE 924), (sym__expression, STATE 2562),
     (sym__real_expression, STATE 660), (sym_throw_expression, STATE 908),
     (sym_rethrow_expression, STATE 908), (sym_assignment_expression, STATE 908),
     (sym_assignable_expression, STATE 1940), (sym_function_expression, STATE 962),
     (sym_if_null_expression, STATE 1477), (sym_conditional_expression, STATE 1477),
     (sym_logical_or_expression, STATE 1477), (sym_logical_and_expression, STATE 1477),
     (sym_equality_expression, STATE 1477), (sym_type_cast_expression, STATE 1477),
     (sym_type_test_expression, STATE 1477), (sym_relational_expression, STATE 1477),
     (sym_bitwise_or_expression, STATE 1477), (sym_bitwise_xor_expression, STATE 1477),
     (sym_bitwise_and_expression, STATE 1477), (sym_shift_expression, STATE 1477),
     (sym_additive_expression, STATE 1477), (sym_multiplicative_expression, STATE 1477),
     (sym__unary_expression, STATE 1121), (sym_unary_expression, STATE 1303),
     (sym__postfix_expression, STATE 1303), (sym_postfix_expression, STATE 1301),
     (sym_spread_element, STATE 2660), (sym_prefix_operator, STATE 431),
     (sym_negation_operator, STATE 1450), (sym__exclamation_operator, STATE 1451),
     (sym_tilde_operator, STATE 1385), (sym_await_expression, STATE 1302),
     (sym_new_expression, STATE 962), (sym_const_object_expression, STATE 962),
     (sym__primary, STATE 668), (sym_parenthesized_expression, STATE 962),
     (sym_constructor_invocation, STATE 643), (sym_constructor_tearoff, STATE 962),
     (sym_type_arguments, STATE 3200), (sym_switch_expression, STATE 962),
     (sym__parenthesized_pattern, STATE 3182), (sym_list_pattern, STATE 3182),
     (sym_map_pattern, STATE 3182), (sym_record_pattern, STATE 3182),
     (sym_object_pattern, STATE 3182), (sym__outer_pattern, STATE 3410),
     (sym_pattern_assignment, STATE 908), (sym_if_element, STATE 2660),
     (sym_for_element, STATE 2660), (sym_type_parameters, STATE 2932),
     (sym__type_name, STATE 2661), (sym__formal_parameter_part, STATE 2339),
     (sym_formal_parameter_list, STATE 2020), (sym__strict_formal_parameter_list, STATE 2016),
     (sym__new_builtin, STATE 2079), (sym_this, STATE 962), (sym_super, STATE 1337),
     (sym_comment, STATE 133), (sym_documentation_comment, STATE 133),
     (aux_sym_string_literal_repeat1, STATE 474), (sym_identifier, ACTIONS 494),
     (anon_sym_POUND, ACTIONS 73), (sym_decimal_integer_literal, ACTIONS 75),
     (sym_hex_integer_literal, ACTIONS 77), (sym_decimal_floating_point_literal, ACTIONS 75),
     (anon_sym_true, ACTIONS 79), (anon_sym_false, ACTIONS 81), (anon_sym_DQUOTE, ACTIONS 83),
     (anon_sym_SQUOTE, ACTIONS 85), (anon_sym_DQUOTE_DQUOTE_DQUOTE, ACTIONS 87),
     (anon_sym_SQUOTE_SQUOTE_SQUOTE, ACTIONS 89), (anon_sym_r_DQUOTE, ACTIONS 91),
     (anon_sym_r_SQUOTE, ACTIONS 93), (anon_sym_r_DQUOTE_DQUOTE_DQUOTE, ACTIONS 95),
     (anon_sym_r_SQUOTE_SQUOTE_SQUOTE, ACTIONS 97), (anon_sym_LBRACE, ACTIONS 442),
     (anon_sym_RBRACE, ACTIONS 600), (anon_sym_LBRACK, ACTIONS 103),
     (anon_sym_null, ACTIONS 105), (anon_sym_LPAREN, ACTIONS 498), (anon_sym_throw, ACTIONS 109),
     (anon_sym_LT, ACTIONS 111), (sym_increment_operator, ACTIONS 113),
     (anon_sym_DOT_DOT_DOT, ACTIONS 167), (sym_minus_operator, ACTIONS 117),
     (anon_sym_BANG, ACTIONS 119), (anon_sym_TILDE, ACTIONS 121), (anon_sym_await, ACTIONS 410),
     (anon_sym_switch, ACTIONS 412), (anon_sym_if, ACTIONS 414), (anon_sym_for, ACTIONS 416),
     (sym_rethrow_builtin, ACTIONS 151), (anon_sym_new, ACTIONS 155),
     (sym_const_builtin, ACTIONS 478), (anon_sym_this, ACTIONS 159),
     (anon_sym_super, ACTIONS 161), (anon_sym_SLASH_SLASH, ACTIONS 3),
     (anon_sym_SLASH_STAR, ACTIONS 5), (anon_sym_SLASH_SLASH_SLASH, ACTIONS 7),
     (sym__block_comment, ACTIONS 9), (sym__documentation_block_comment, ACTIONS 11)]"

lemma row_ok_133: "table_row_ok 133 ts_parse_table_133"
  by (simp add: row_simps ts_parse_table_133_def)

definition ts_parse_table_134 :: table_row where
  "ts_parse_table_134 = [
     (sym__bool_literal, STATE 989), (sym__numeric_literal, STATE 989),
     (sym__literal, STATE 962), (sym_symbol_literal, STATE 989), (sym_true, STATE 900),
     (sym_false, STATE 900), (sym_string_literal, STATE 989),
     (sym__string_literal_double_quotes, STATE 627),
     (sym__string_literal_single_quotes, STATE 627),
     (sym__string_literal_double_quotes_multiple, STATE 627),
     (sym__string_literal_single_quotes_multiple, STATE 627),
     (sym__raw_string_literal_double_quotes, STATE 627),
     (sym__raw_string_literal_single_quotes, STATE 627),
     (sym__raw_string_literal_double_quotes_multiple, STATE 627),
     (sym__raw_string_literal_single_quotes_multiple, STATE 627), (sym_list_literal, STATE 989),
     (sym_set_or_map_literal, STATE 989), (sym_pair, STATE 2660), (sym__element, STATE 2838),
     (sym_null_literal, STATE 989), (sym_record_literal, STATE 989),
     (sym__record_literal_no_const, STATE 924), (sym__expression, STATE 2562),
     (sym__real_expression, STATE 660), (sym_throw_expression, STATE 908),
     (sym_rethrow_expression, STATE 908), (sym_assignment_expression, STATE 908),
     (sym_assignable_expression, STATE 1940), (sym_function_expression, STATE 962),
     (sym_if_null_expression, STATE 1477), (sym_conditional_expression, STATE 1477),
     (sym_logical_or_expression, STATE 1477), (sym_logical_and_expression, STATE 1477),
     (sym_equality_expression, STATE 1477), (sym_type_cast_expression, STATE 1477),
     (sym_type_test_expression, STATE 1477), (sym_relational_expression, STATE 1477),
     (sym_bitwise_or_expression, STATE 1477), (sym_bitwise_xor_expression, STATE 1477),
     (sym_bitwise_and_expression, STATE 1477), (sym_shift_expression, STATE 1477),
     (sym_additive_expression, STATE 1477), (sym_multiplicative_expression, STATE 1477),
     (sym__unary_expression, STATE 1121), (sym_unary_expression, STATE 1303),
     (sym__postfix_expression, STATE 1303), (sym_postfix_expression, STATE 1301),
     (sym_spread_element, STATE 2660), (sym_prefix_operator, STATE 431),
     (sym_negation_operator, STATE 1450), (sym__exclamation_operator, STATE 1451),
     (sym_tilde_operator, STATE 1385), (sym_await_expression, STATE 1302),
     (sym_new_expression, STATE 962), (sym_const_object_expression, STATE 962),
     (sym__primary, STATE 668), (sym_parenthesized_expression, STATE 962),
     (sym_constructor_invocation, STATE 643), (sym_constructor_tearoff, STATE 962),
     (sym_type_arguments, STATE 3200), (sym_switch_expression, STATE 962),
     (sym__parenthesized_pattern, STATE 3182), (sym_list_pattern, STATE 3182),
     (sym_map_pattern, STATE 3182), (sym_record_pattern, STATE 3182),
     (sym_object_pattern, STATE 3182), (sym__outer_pattern, STATE 3410),
     (sym_pattern_assignment, STATE 908), (sym_if_element, STATE 2660),
     (sym_for_element, STATE 2660), (sym_type_parameters, STATE 2932),
     (sym__type_name, STATE 2661), (sym__formal_parameter_part, STATE 2339),
     (sym_formal_parameter_list, STATE 2020), (sym__strict_formal_parameter_list, STATE 2016),
     (sym__new_builtin, STATE 2079), (sym_this, STATE 962), (sym_super, STATE 1337),
     (sym_comment, STATE 134), (sym_documentation_comment, STATE 134),
     (aux_sym_string_literal_repeat1, STATE 474), (sym_identifier, ACTIONS 494),
     (anon_sym_POUND, ACTIONS 73), (sym_decimal_integer_literal, ACTIONS 75),
     (sym_hex_integer_literal, ACTIONS 77), (sym_decimal_floating_point_literal, ACTIONS 75),
     (anon_sym_true, ACTIONS 79), (anon_sym_false, ACTIONS 81), (anon_sym_DQUOTE, ACTIONS 83),
     (anon_sym_SQUOTE, ACTIONS 85), (anon_sym_DQUOTE_DQUOTE_DQUOTE, ACTIONS 87),
     (anon_sym_SQUOTE_SQUOTE_SQUOTE, ACTIONS 89), (anon_sym_r_DQUOTE, ACTIONS 91),
     (anon_sym_r_SQUOTE, ACTIONS 93), (anon_sym_r_DQUOTE_DQUOTE_DQUOTE, ACTIONS 95),
     (anon_sym_r_SQUOTE_SQUOTE_SQUOTE, ACTIONS 97), (anon_sym_LBRACE, ACTIONS 442),
     (anon_sym_RBRACE, ACTIONS 602), (anon_sym_LBRACK, ACTIONS 103),
     (anon_sym_null, ACTIONS 105), (anon_sym_LPAREN, ACTIONS 498), (anon_sym_throw, ACTIONS 109),
     (anon_sym_LT, ACTIONS 111), (sym_increment_operator, ACTIONS 113),
     (anon_sym_DOT_DOT_DOT, ACTIONS 167), (sym_minus_operator, ACTIONS 117),
     (anon_sym_BANG, ACTIONS 119), (anon_sym_TILDE, ACTIONS 121), (anon_sym_await, ACTIONS 410),
     (anon_sym_switch, ACTIONS 412), (anon_sym_if, ACTIONS 414), (anon_sym_for, ACTIONS 416),
     (sym_rethrow_builtin, ACTIONS 151), (anon_sym_new, ACTIONS 155),
     (sym_const_builtin, ACTIONS 478), (anon_sym_this, ACTIONS 159),
     (anon_sym_super, ACTIONS 161), (anon_sym_SLASH_SLASH, ACTIONS 3),
     (anon_sym_SLASH_STAR, ACTIONS 5), (anon_sym_SLASH_SLASH_SLASH, ACTIONS 7),
     (sym__block_comment, ACTIONS 9), (sym__documentation_block_comment, ACTIONS 11)]"

lemma row_ok_134: "table_row_ok 134 ts_parse_table_134"
  by (simp add: row_simps ts_parse_table_134_def)

definition ts_parse_table_135 :: table_row where
  "ts_parse_table_135 = [
     (sym__bool_literal, STATE 989), (sym__numeric_literal, STATE 989),
     (sym__literal, STATE 962), (sym_symbol_literal, STATE 989), (sym_true, STATE 900),
     (sym_false, STATE 900), (sym_string_literal, STATE 989),
     (sym__string_literal_double_quotes, STATE 627),
     (sym__string_literal_single_quotes, STATE 627),
     (sym__string_literal_double_quotes_multiple, STATE 627),
     (sym__string_literal_single_quotes_multiple, STATE 627),
     (sym__raw_string_literal_double_quotes, STATE 627),
     (sym__raw_string_literal_single_quotes, STATE 627),
     (sym__raw_string_literal_double_quotes_multiple, STATE 627),
     (sym__raw_string_literal_single_quotes_multiple, STATE 627), (sym_list_literal, STATE 989),
     (sym_set_or_map_literal, STATE 989), (sym_pair, STATE 2660), (sym__element, STATE 2838),
     (sym_null_literal, STATE 989), (sym_record_literal, STATE 989),
     (sym__record_literal_no_const, STATE 924), (sym__expression, STATE 2562),
     (sym__real_expression, STATE 660), (sym_throw_expression, STATE 908),
     (sym_rethrow_expression, STATE 908), (sym_assignment_expression, STATE 908),
     (sym_assignable_expression, STATE 1940), (sym_function_expression, STATE 962),
     (sym_if_null_expression, STATE 1477), (sym_conditional_expression, STATE 1477),
     (sym_logical_or_expression, STATE 1477), (sym_logical_and_expression, STATE 1477),
     (sym_equality_expression, STATE 1477), (sym_type_cast_expression, STATE 1477),
     (sym_type_test_expression, STATE 1477), (sym_relational_expression, STATE 1477),
     (sym_bitwise_or_expression, STATE 1477), (sym_bitwise_xor_expression, STATE 1477),
     (sym_bitwise_and_expression, STATE 1477), (sym_shift_expression, STATE 1477),
     (sym_additive_expression, STATE 1477), (sym_multiplicative_expression, STATE 1477),
     (sym__unary_expression, STATE 1121), (sym_unary_expression, STATE 1303),
     (sym__postfix_expression, STATE 1303), (sym_postfix_expression, STATE 1301),
     (sym_spread_element, STATE 2660), (sym_prefix_operator, STATE 431),
     (sym_negation_operator, STATE 1450), (sym__exclamation_operator, STATE 1451),
     (sym_tilde_operator, STATE 1385), (sym_await_expression, STATE 1302),
     (sym_new_expression, STATE 962), (sym_const_object_expression, STATE 962),
     (sym__primary, STATE 668), (sym_parenthesized_expression, STATE 962),
     (sym_constructor_invocation, STATE 643), (sym_constructor_tearoff, STATE 962),
     (sym_type_arguments, STATE 3200), (sym_switch_expression, STATE 962),
     (sym__parenthesized_pattern, STATE 3182), (sym_list_pattern, STATE 3182),
     (sym_map_pattern, STATE 3182), (sym_record_pattern, STATE 3182),
     (sym_object_pattern, STATE 3182), (sym__outer_pattern, STATE 3410),
     (sym_pattern_assignment, STATE 908), (sym_if_element, STATE 2660),
     (sym_for_element, STATE 2660), (sym_type_parameters, STATE 2932),
     (sym__type_name, STATE 2661), (sym__formal_parameter_part, STATE 2339),
     (sym_formal_parameter_list, STATE 2020), (sym__strict_formal_parameter_list, STATE 2016),
     (sym__new_builtin, STATE 2079), (sym_this, STATE 962), (sym_super, STATE 1337),
     (sym_comment, STATE 135), (sym_documentation_comment, STATE 135),
     (aux_sym_string_literal_repeat1, STATE 474), (sym_identifier, ACTIONS 494),
     (anon_sym_POUND, ACTIONS 73), (sym_decimal_integer_literal, ACTIONS 75),
     (sym_hex_integer_literal, ACTIONS 77), (sym_decimal_floating_point_literal, ACTIONS 75),
     (anon_sym_true, ACTIONS 79), (anon_sym_false, ACTIONS 81), (anon_sym_DQUOTE, ACTIONS 83),
     (anon_sym_SQUOTE, ACTIONS 85), (anon_sym_DQUOTE_DQUOTE_DQUOTE, ACTIONS 87),
     (anon_sym_SQUOTE_SQUOTE_SQUOTE, ACTIONS 89), (anon_sym_r_DQUOTE, ACTIONS 91),
     (anon_sym_r_SQUOTE, ACTIONS 93), (anon_sym_r_DQUOTE_DQUOTE_DQUOTE, ACTIONS 95),
     (anon_sym_r_SQUOTE_SQUOTE_SQUOTE, ACTIONS 97), (anon_sym_LBRACE, ACTIONS 442),
     (anon_sym_LBRACK, ACTIONS 103), (anon_sym_RBRACK, ACTIONS 604),
     (anon_sym_null, ACTIONS 105), (anon_sym_LPAREN, ACTIONS 498), (anon_sym_throw, ACTIONS 109),
     (anon_sym_LT, ACTIONS 111), (sym_increment_operator, ACTIONS 113),
     (anon_sym_DOT_DOT_DOT, ACTIONS 167), (sym_minus_operator, ACTIONS 117),
     (anon_sym_BANG, ACTIONS 119), (anon_sym_TILDE, ACTIONS 121), (anon_sym_await, ACTIONS 410),
     (anon_sym_switch, ACTIONS 412), (anon_sym_if, ACTIONS 414), (anon_sym_for, ACTIONS 416),
     (sym_rethrow_builtin, ACTIONS 151), (anon_sym_new, ACTIONS 155),
     (sym_const_builtin, ACTIONS 478), (anon_sym_this, ACTIONS 159),
     (anon_sym_super, ACTIONS 161), (anon_sym_SLASH_SLASH, ACTIONS 3),
     (anon_sym_SLASH_STAR, ACTIONS 5), (anon_sym_SLASH_SLASH_SLASH, ACTIONS 7),
     (sym__block_comment, ACTIONS 9), (sym__documentation_block_comment, ACTIONS 11)]"

lemma row_ok_135: "table_row_ok 135 ts_parse_table_135"
  by (simp add: row_simps ts_parse_table_135_def)

definition ts_parse_table_136 :: table_row where
  "ts_parse_table_136 = [
     (sym__bool_literal, STATE 989), (sym__numeric_literal, STATE 989),
     (sym__literal, STATE 962), (sym_symbol_literal, STATE 989), (sym_true, STATE 900),
     (sym_false, STATE 900), (sym_string_literal, STATE 989),
     (sym__string_literal_double_quotes, STATE 627),
     (sym__string_literal_single_quotes, STATE 627),
     (sym__string_literal_double_quotes_multiple, STATE 627),
     (sym__string_literal_single_quotes_multiple, STATE 627),
     (sym__raw_string_literal_double_quotes, STATE 627),
     (sym__raw_string_literal_single_quotes, STATE 627),
     (sym__raw_string_literal_double_quotes_multiple, STATE 627),
     (sym__raw_string_literal_single_quotes_multiple, STATE 627), (sym_list_literal, STATE 989),
     (sym_set_or_map_literal, STATE 989), (sym_pair, STATE 2660), (sym__element, STATE 2930),
     (sym_null_literal, STATE 989), (sym_record_literal, STATE 989),
     (sym__record_literal_no_const, STATE 924), (sym__expression, STATE 2562),
     (sym__real_expression, STATE 660), (sym_throw_expression, STATE 908),
     (sym_rethrow_expression, STATE 908), (sym_assignment_expression, STATE 908),
     (sym_assignable_expression, STATE 1940), (sym_function_expression, STATE 962),
     (sym_if_null_expression, STATE 1477), (sym_conditional_expression, STATE 1477),
     (sym_logical_or_expression, STATE 1477), (sym_logical_and_expression, STATE 1477),
     (sym_equality_expression, STATE 1477), (sym_type_cast_expression, STATE 1477),
     (sym_type_test_expression, STATE 1477), (sym_relational_expression, STATE 1477),
     (sym_bitwise_or_expression, STATE 1477), (sym_bitwise_xor_expression, STATE 1477),
     (sym_bitwise_and_expression, STATE 1477), (sym_shift_expression, STATE 1477),
     (sym_additive_expression, STATE 1477), (sym_multiplicative_expression, STATE 1477),
     (sym__unary_expression, STATE 1121), (sym_unary_expression, STATE 1303),
     (sym__postfix_expression, STATE 1303), (sym_postfix_expression, STATE 1301),
     (sym_spread_element, STATE 2660), (sym_prefix_operator, STATE 431),
     (sym_negation_operator, STATE 1450), (sym__exclamation_operator, STATE 1451),
     (sym_tilde_operator, STATE 1385), (sym_await_expression, STATE 1302),
     (sym_new_expression, STATE 962), (sym_const_object_expression, STATE 962),
     (sym__primary, STATE 668), (sym_parenthesized_expression, STATE 962),
     (sym_constructor_invocation, STATE 643), (sym_constructor_tearoff, STATE 962),
     (sym_type_arguments, STATE 3200), (sym_switch_expression, STATE 962),
     (sym__parenthesized_pattern, STATE 3182), (sym_list_pattern, STATE 3182),
     (sym_map_pattern, STATE 3182), (sym_record_pattern, STATE 3182),
     (sym_object_pattern, STATE 3182), (sym__outer_pattern, STATE 3410),
     (sym_pattern_assignment, STATE 908), (sym_if_element, STATE 2660),
     (sym_for_element, STATE 2660), (sym_type_parameters, STATE 2932),
     (sym__type_name, STATE 2661), (sym__formal_parameter_part, STATE 2339),
     (sym_formal_parameter_list, STATE 2020), (sym__strict_formal_parameter_list, STATE 2016),
     (sym__new_builtin, STATE 2079), (sym_this, STATE 962), (sym_super, STATE 1337),
     (sym_comment, STATE 136), (sym_documentation_comment, STATE 136),
     (aux_sym_string_literal_repeat1, STATE 474), (sym_identifier, ACTIONS 494),
     (anon_sym_POUND, ACTIONS 73), (sym_decimal_integer_literal, ACTIONS 75),
     (sym_hex_integer_literal, ACTIONS 77), (sym_decimal_floating_point_literal, ACTIONS 75),
     (anon_sym_true, ACTIONS 79), (anon_sym_false, ACTIONS 81), (anon_sym_DQUOTE, ACTIONS 83),
     (anon_sym_SQUOTE, ACTIONS 85), (anon_sym_DQUOTE_DQUOTE_DQUOTE, ACTIONS 87),
     (anon_sym_SQUOTE_SQUOTE_SQUOTE, ACTIONS 89), (anon_sym_r_DQUOTE, ACTIONS 91),
     (anon_sym_r_SQUOTE, ACTIONS 93), (anon_sym_r_DQUOTE_DQUOTE_DQUOTE, ACTIONS 95),
     (anon_sym_r_SQUOTE_SQUOTE_SQUOTE, ACTIONS 97), (anon_sym_LBRACE, ACTIONS 442),
     (anon_sym_LBRACK, ACTIONS 103), (anon_sym_RBRACK, ACTIONS 606),
     (anon_sym_null, ACTIONS 105), (anon_sym_LPAREN, ACTIONS 498), (anon_sym_throw, ACTIONS 109),
     (anon_sym_LT, ACTIONS 111), (sym_increment_operator, ACTIONS 113),
     (anon_sym_DOT_DOT_DOT, ACTIONS 167), (sym_minus_operator, ACTIONS 117),
     (anon_sym_BANG, ACTIONS 119), (anon_sym_TILDE, ACTIONS 121), (anon_sym_await, ACTIONS 410),
     (anon_sym_switch, ACTIONS 412), (anon_sym_if, ACTIONS 414), (anon_sym_for, ACTIONS 416),
     (sym_rethrow_builtin, ACTIONS 151), (anon_sym_new, ACTIONS 155),
     (sym_const_builtin, ACTIONS 478), (anon_sym_this, ACTIONS 159),
     (anon_sym_super, ACTIONS 161), (anon_sym_SLASH_SLASH, ACTIONS 3),
     (anon_sym_SLASH_STAR, ACTIONS 5), (anon_sym_SLASH_SLASH_SLASH, ACTIONS 7),
     (sym__block_comment, ACTIONS 9), (sym__documentation_block_comment, ACTIONS 11)]"

lemma row_ok_136: "table_row_ok 136 ts_parse_table_136"
  by (simp add: row_simps ts_parse_table_136_def)

definition ts_parse_table_137 :: table_row where
  "ts_parse_table_137 = [
     (sym__bool_literal, STATE 989), (sym__numeric_literal, STATE 989),
     (sym__literal, STATE 962), (sym_symbol_literal, STATE 989), (sym_true, STATE 900),
     (sym_false, STATE 900), (sym_string_literal, STATE 989),
     (sym__string_literal_double_quotes, STATE 627),
     (sym__string_literal_single_quotes, STATE 627),
     (sym__string_literal_double_quotes_multiple, STATE 627),
     (sym__string_literal_single_quotes_multiple, STATE 627),
     (sym__raw_string_literal_double_quotes, STATE 627),
     (sym__raw_string_literal_single_quotes, STATE 627),
     (sym__raw_string_literal_double_quotes_multiple, STATE 627),
     (sym__raw_string_literal_single_quotes_multiple, STATE 627), (sym_list_literal, STATE 989),
     (sym_set_or_map_literal, STATE 989), (sym_pair, STATE 2660), (sym__element, STATE 2867),
     (sym_null_literal, STATE 989), (sym_record_literal, STATE 989),
     (sym__record_literal_no_const, STATE 924), (sym__expression, STATE 2562),
     (sym__real_expression, STATE 660), (sym_throw_expression, STATE 908),
     (sym_rethrow_expression, STATE 908), (sym_assignment_expression, STATE 908),
     (sym_assignable_expression, STATE 1940), (sym_function_expression, STATE 962),
     (sym_if_null_expression, STATE 1477), (sym_conditional_expression, STATE 1477),
     (sym_logical_or_expression, STATE 1477), (sym_logical_and_expression, STATE 1477),
     (sym_equality_expression, STATE 1477), (sym_type_cast_expression, STATE 1477),
     (sym_type_test_expression, STATE 1477), (sym_relational_expression, STATE 1477),
     (sym_bitwise_or_expression, STATE 1477), (sym_bitwise_xor_expression, STATE 1477),
     (sym_bitwise_and_expression, STATE 1477), (sym_shift_expression, STATE 1477),
     (sym_additive_expression, STATE 1477), (sym_multiplicative_expression, STATE 1477),
     (sym__unary_expression, STATE 1121), (sym_unary_expression, STATE 1303),
     (sym__postfix_expression, STATE 1303), (sym_postfix_expression, STATE 1301),
     (sym_spread_element, STATE 2660), (sym_prefix_operator, STATE 431),
     (sym_negation_operator, STATE 1450), (sym__exclamation_operator, STATE 1451),
     (sym_tilde_operator, STATE 1385), (sym_await_expression, STATE 1302),
     (sym_new_expression, STATE 962), (sym_const_object_expression, STATE 962),
     (sym__primary, STATE 668), (sym_parenthesized_expression, STATE 962),
     (sym_constructor_invocation, STATE 643), (sym_constructor_tearoff, STATE 962),
     (sym_type_arguments, STATE 3200), (sym_switch_expression, STATE 962),
     (sym__parenthesized_pattern, STATE 3182), (sym_list_pattern, STATE 3182),
     (sym_map_pattern, STATE 3182), (sym_record_pattern, STATE 3182),
     (sym_object_pattern, STATE 3182), (sym__outer_pattern, STATE 3410),
     (sym_pattern_assignment, STATE 908), (sym_if_element, STATE 2660),
     (sym_for_element, STATE 2660), (sym_type_parameters, STATE 2932),
     (sym__type_name, STATE 2661), (sym__formal_parameter_part, STATE 2339),
     (sym_formal_parameter_list, STATE 2020), (sym__strict_formal_parameter_list, STATE 2016),
     (sym__new_builtin, STATE 2079), (sym_this, STATE 962), (sym_super, STATE 1337),
     (sym_comment, STATE 137), (sym_documentation_comment, STATE 137),
     (aux_sym_string_literal_repeat1, STATE 474), (sym_identifier, ACTIONS 494),
     (anon_sym_POUND, ACTIONS 73), (sym_decimal_integer_literal, ACTIONS 75),
     (sym_hex_integer_literal, ACTIONS 77), (sym_decimal_floating_point_literal, ACTIONS 75),
     (anon_sym_true, ACTIONS 79), (anon_sym_false, ACTIONS 81), (anon_sym_DQUOTE, ACTIONS 83),
     (anon_sym_SQUOTE, ACTIONS 85), (anon_sym_DQUOTE_DQUOTE_DQUOTE, ACTIONS 87),
     (anon_sym_SQUOTE_SQUOTE_SQUOTE, ACTIONS 89), (anon_sym_r_DQUOTE, ACTIONS 91),
     (anon_sym_r_SQUOTE, ACTIONS 93), (anon_sym_r_DQUOTE_DQUOTE_DQUOTE, ACTIONS 95),
     (anon_sym_r_SQUOTE_SQUOTE_SQUOTE, ACTIONS 97), (anon_sym_LBRACE, ACTIONS 442),
     (anon_sym_RBRACE, ACTIONS 552), (anon_sym_LBRACK, ACTIONS 103),
     (anon_sym_null, ACTIONS 105), (anon_sym_LPAREN, ACTIONS 498), (anon_sym_throw, ACTIONS 109),
     (anon_sym_LT, ACTIONS 111), (sym_increment_operator, ACTIONS 113),
     (anon_sym_DOT_DOT_DOT, ACTIONS 167), (sym_minus_operator, ACTIONS 117),
     (anon_sym_BANG, ACTIONS 119), (anon_sym_TILDE, ACTIONS 121), (anon_sym_await, ACTIONS 410),
     (anon_sym_switch, ACTIONS 412), (anon_sym_if, ACTIONS 414), (anon_sym_for, ACTIONS 416),
     (sym_rethrow_builtin, ACTIONS 151), (anon_sym_new, ACTIONS 155),
     (sym_const_builtin, ACTIONS 478), (anon_sym_this, ACTIONS 159),
     (anon_sym_super, ACTIONS 161), (anon_sym_SLASH_SLASH, ACTIONS 3),
     (anon_sym_SLASH_STAR, ACTIONS 5), (anon_sym_SLASH_SLASH_SLASH, ACTIONS 7),
     (sym__block_comment, ACTIONS 9), (sym__documentation_block_comment, ACTIONS 11)]"

lemma row_ok_137: "table_row_ok 137 ts_parse_table_137"
  by (simp add: row_simps ts_parse_table_137_def)

definition ts_parse_table_138 :: table_row where
  "ts_parse_table_138 = [
     (sym__bool_literal, STATE 989), (sym__numeric_literal, STATE 989),
     (sym__literal, STATE 962), (sym_symbol_literal, STATE 989), (sym_true, STATE 900),
     (sym_false, STATE 900), (sym_string_literal, STATE 989),
     (sym__string_literal_double_quotes, STATE 627),
     (sym__string_literal_single_quotes, STATE 627),
     (sym__string_literal_double_quotes_multiple, STATE 627),
     (sym__string_literal_single_quotes_multiple, STATE 627),
     (sym__raw_string_literal_double_quotes, STATE 627),
     (sym__raw_string_literal_single_quotes, STATE 627),
     (sym__raw_string_literal_double_quotes_multiple, STATE 627),
     (sym__raw_string_literal_single_quotes_multiple, STATE 627), (sym_list_literal, STATE 989),
     (sym_set_or_map_literal, STATE 989), (sym_pair, STATE 2660), (sym__element, STATE 2860),
     (sym_null_literal, STATE 989), (sym_record_literal, STATE 989),
     (sym__record_literal_no_const, STATE 924), (sym__expression, STATE 2562),
     (sym__real_expression, STATE 660), (sym_throw_expression, STATE 908),
     (sym_rethrow_expression, STATE 908), (sym_assignment_expression, STATE 908),
     (sym_assignable_expression, STATE 1940), (sym_function_expression, STATE 962),
     (sym_if_null_expression, STATE 1477), (sym_conditional_expression, STATE 1477),
     (sym_logical_or_expression, STATE 1477), (sym_logical_and_expression, STATE 1477),
     (sym_equality_expression, STATE 1477), (sym_type_cast_expression, STATE 1477),
     (sym_type_test_expression, STATE 1477), (sym_relational_expression, STATE 1477),
     (sym_bitwise_or_expression, STATE 1477), (sym_bitwise_xor_expression, STATE 1477),
     (sym_bitwise_and_expression, STATE 1477), (sym_shift_expression, STATE 1477),
     (sym_additive_expression, STATE 1477), (sym_multiplicative_expression, STATE 1477),
     (sym__unary_expression, STATE 1121), (sym_unary_expression, STATE 1303),
     (sym__postfix_expression, STATE 1303), (sym_postfix_expression, STATE 1301),
     (sym_spread_element, STATE 2660), (sym_prefix_operator, STATE 431),
     (sym_negation_operator, STATE 1450), (sym__exclamation_operator, STATE 1451),
     (sym_tilde_operator, STATE 1385), (sym_await_expression, STATE 1302),
     (sym_new_expression, STATE 962), (sym_const_object_expression, STATE 962),
     (sym__primary, STATE 668), (sym_parenthesized_expression, STATE 962),
     (sym_constructor_invocation, STATE 643), (sym_constructor_tearoff, STATE 962),
     (sym_type_arguments, STATE 3200), (sym_switch_expression, STATE 962),
     (sym__parenthesized_pattern, STATE 3182), (sym_list_pattern, STATE 3182),
     (sym_map_pattern, STATE 3182), (sym_record_pattern, STATE 3182),
     (sym_object_pattern, STATE 3182), (sym__outer_pattern, STATE 3410),
     (sym_pattern_assignment, STATE 908), (sym_if_element, STATE 2660),
     (sym_for_element, STATE 2660), (sym_type_parameters, STATE 2932),
     (sym__type_name, STATE 2661), (sym__formal_parameter_part, STATE 2339),
     (sym_formal_parameter_list, STATE 2020), (sym__strict_formal_parameter_list, STATE 2016),
     (sym__new_builtin, STATE 2079), (sym_this, STATE 962), (sym_super, STATE 1337),
     (sym_comment, STATE 138), (sym_documentation_comment, STATE 138),
     (aux_sym_string_literal_repeat1, STATE 474), (sym_identifier, ACTIONS 494),
     (anon_sym_POUND, ACTIONS 73), (sym_decimal_integer_literal, ACTIONS 75),
     (sym_hex_integer_literal, ACTIONS 77), (sym_decimal_floating_point_literal, ACTIONS 75),
     (anon_sym_true, ACTIONS 79), (anon_sym_false, ACTIONS 81), (anon_sym_DQUOTE, ACTIONS 83),
     (anon_sym_SQUOTE, ACTIONS 85), (anon_sym_DQUOTE_DQUOTE_DQUOTE, ACTIONS 87),
     (anon_sym_SQUOTE_SQUOTE_SQUOTE, ACTIONS 89), (anon_sym_r_DQUOTE, ACTIONS 91),
     (anon_sym_r_SQUOTE, ACTIONS 93), (anon_sym_r_DQUOTE_DQUOTE_DQUOTE, ACTIONS 95),
     (anon_sym_r_SQUOTE_SQUOTE_SQUOTE, ACTIONS 97), (anon_sym_LBRACE, ACTIONS 442),
     (anon_sym_LBRACK, ACTIONS 103), (anon_sym_RBRACK, ACTIONS 556),
     (anon_sym_null, ACTIONS 105), (anon_sym_LPAREN, ACTIONS 498), (anon_sym_throw, ACTIONS 109),
     (anon_sym_LT, ACTIONS 111), (sym_increment_operator, ACTIONS 113),
     (anon_sym_DOT_DOT_DOT, ACTIONS 167), (sym_minus_operator, ACTIONS 117),
     (anon_sym_BANG, ACTIONS 119), (anon_sym_TILDE, ACTIONS 121), (anon_sym_await, ACTIONS 410),
     (anon_sym_switch, ACTIONS 412), (anon_sym_if, ACTIONS 414), (anon_sym_for, ACTIONS 416),
     (sym_rethrow_builtin, ACTIONS 151), (anon_sym_new, ACTIONS 155),
     (sym_const_builtin, ACTIONS 478), (anon_sym_this, ACTIONS 159),
     (anon_sym_super, ACTIONS 161), (anon_sym_SLASH_SLASH, ACTIONS 3),
     (anon_sym_SLASH_STAR, ACTIONS 5), (anon_sym_SLASH_SLASH_SLASH, ACTIONS 7),
     (sym__block_comment, ACTIONS 9), (sym__documentation_block_comment, ACTIONS 11)]"

lemma row_ok_138: "table_row_ok 138 ts_parse_table_138"
  by (simp add: row_simps ts_parse_table_138_def)

definition ts_parse_table_139 :: table_row where
  "ts_parse_table_139 = [
     (sym__bool_literal, STATE 989), (sym__numeric_literal, STATE 989),
     (sym__literal, STATE 962), (sym_symbol_literal, STATE 989), (sym_true, STATE 900),
     (sym_false, STATE 900), (sym_string_literal, STATE 989),
     (sym__string_literal_double_quotes, STATE 627),
     (sym__string_literal_single_quotes, STATE 627),
     (sym__string_literal_double_quotes_multiple, STATE 627),
     (sym__string_literal_single_quotes_multiple, STATE 627),
     (sym__raw_string_literal_double_quotes, STATE 627),
     (sym__raw_string_literal_single_quotes, STATE 627),
     (sym__raw_string_literal_double_quotes_multiple, STATE 627),
     (sym__raw_string_literal_single_quotes_multiple, STATE 627), (sym_list_literal, STATE 989),
     (sym_set_or_map_literal, STATE 989), (sym_pair, STATE 2660), (sym__element, STATE 2838),
     (sym_null_literal, STATE 989), (sym_record_literal, STATE 989),
     (sym__record_literal_no_const, STATE 924), (sym__expression, STATE 2562),
     (sym__real_expression, STATE 660), (sym_throw_expression, STATE 908),
     (sym_rethrow_expression, STATE 908), (sym_assignment_expression, STATE 908),
     (sym_assignable_expression, STATE 1940), (sym_function_expression, STATE 962),
     (sym_if_null_expression, STATE 1477), (sym_conditional_expression, STATE 1477),
     (sym_logical_or_expression, STATE 1477), (sym_logical_and_expression, STATE 1477),
     (sym_equality_expression, STATE 1477), (sym_type_cast_expression, STATE 1477),
     (sym_type_test_expression, STATE 1477), (sym_relational_expression, STATE 1477),
     (sym_bitwise_or_expression, STATE 1477), (sym_bitwise_xor_expression, STATE 1477),
     (sym_bitwise_and_expression, STATE 1477), (sym_shift_expression, STATE 1477),
     (sym_additive_expression, STATE 1477), (sym_multiplicative_expression, STATE 1477),
     (sym__unary_expression, STATE 1121), (sym_unary_expression, STATE 1303),
     (sym__postfix_expression, STATE 1303), (sym_postfix_expression, STATE 1301),
     (sym_spread_element, STATE 2660), (sym_prefix_operator, STATE 431),
     (sym_negation_operator, STATE 1450), (sym__exclamation_operator, STATE 1451),
     (sym_tilde_operator, STATE 1385), (sym_await_expression, STATE 1302),
     (sym_new_expression, STATE 962), (sym_const_object_expression, STATE 962),
     (sym__primary, STATE 668), (sym_parenthesized_expression, STATE 962),
     (sym_constructor_invocation, STATE 643), (sym_constructor_tearoff, STATE 962),
     (sym_type_arguments, STATE 3200), (sym_switch_expression, STATE 962),
     (sym__parenthesized_pattern, STATE 3182), (sym_list_pattern, STATE 3182),
     (sym_map_pattern, STATE 3182), (sym_record_pattern, STATE 3182),
     (sym_object_pattern, STATE 3182), (sym__outer_pattern, STATE 3410),
     (sym_pattern_assignment, STATE 908), (sym_if_element, STATE 2660),
     (sym_for_element, STATE 2660), (sym_type_parameters, STATE 2932),
     (sym__type_name, STATE 2661), (sym__formal_parameter_part, STATE 2339),
     (sym_formal_parameter_list, STATE 2020), (sym__strict_formal_parameter_list, STATE 2016),
     (sym__new_builtin, STATE 2079), (sym_this, STATE 962), (sym_super, STATE 1337),
     (sym_comment, STATE 139), (sym_documentation_comment, STATE 139),
     (aux_sym_string_literal_repeat1, STATE 474), (sym_identifier, ACTIONS 494),
     (anon_sym_POUND, ACTIONS 73), (sym_decimal_integer_literal, ACTIONS 75),
     (sym_hex_integer_literal, ACTIONS 77), (sym_decimal_floating_point_literal, ACTIONS 75),
     (anon_sym_true, ACTIONS 79), (anon_sym_false, ACTIONS 81), (anon_sym_DQUOTE, ACTIONS 83),
     (anon_sym_SQUOTE, ACTIONS 85), (anon_sym_DQUOTE_DQUOTE_DQUOTE, ACTIONS 87),
     (anon_sym_SQUOTE_SQUOTE_SQUOTE, ACTIONS 89), (anon_sym_r_DQUOTE, ACTIONS 91),
     (anon_sym_r_SQUOTE, ACTIONS 93), (anon_sym_r_DQUOTE_DQUOTE_DQUOTE, ACTIONS 95),
     (anon_sym_r_SQUOTE_SQUOTE_SQUOTE, ACTIONS 97), (anon_sym_LBRACE, ACTIONS 442),
     (anon_sym_LBRACK, ACTIONS 103), (anon_sym_RBRACK, ACTIONS 608),
     (anon_sym_null, ACTIONS 105), (anon_sym_LPAREN, ACTIONS 498), (anon_sym_throw, ACTIONS 109),
     (anon_sym_LT, ACTIONS 111), (sym_increment_operator, ACTIONS 113),
     (anon_sym_DOT_DOT_DOT, ACTIONS 167), (sym_minus_operator, ACTIONS 117),
     (anon_sym_BANG, ACTIONS 119), (anon_sym_TILDE, ACTIONS 121), (anon_sym_await, ACTIONS 410),
     (anon_sym_switch, ACTIONS 412), (anon_sym_if, ACTIONS 414), (anon_sym_for, ACTIONS 416),
     (sym_rethrow_builtin, ACTIONS 151), (anon_sym_new, ACTIONS 155),
     (sym_const_builtin, ACTIONS 478), (anon_sym_this, ACTIONS 159),
     (anon_sym_super, ACTIONS 161), (anon_sym_SLASH_SLASH, ACTIONS 3),
     (anon_sym_SLASH_STAR, ACTIONS 5), (anon_sym_SLASH_SLASH_SLASH, ACTIONS 7),
     (sym__block_comment, ACTIONS 9), (sym__documentation_block_comment, ACTIONS 11)]"

lemma row_ok_139: "table_row_ok 139 ts_parse_table_139"
  by (simp add: row_simps ts_parse_table_139_def)

definition ts_parse_table_140 :: table_row where
  "ts_parse_table_140 = [
     (sym__bool_literal, STATE 989), (sym__numeric_literal, STATE 989),
     (sym__literal, STATE 962), (sym_symbol_literal, STATE 989), (sym_true, STATE 900),
     (sym_false, STATE 900), (sym_string_literal, STATE 989),
     (sym__string_literal_double_quotes, STATE 627),
     (sym__string_literal_single_quotes, STATE 627),
     (sym__string_literal_double_quotes_multiple, STATE 627),
     (sym__string_literal_single_quotes_multiple, STATE 627),
     (sym__raw_string_literal_double_quotes, STATE 627),
     (sym__raw_string_literal_single_quotes, STATE 627),
     (sym__raw_string_literal_double_quotes_multiple, STATE 627),
     (sym__raw_string_literal_single_quotes_multiple, STATE 627), (sym_list_literal, STATE 989),
     (sym_set_or_map_literal, STATE 989), (sym_pair, STATE 2660), (sym__element, STATE 2929),
     (sym_null_literal, STATE 989), (sym_record_literal, STATE 989),
     (sym__record_literal_no_const, STATE 924), (sym__expression, STATE 2562),
     (sym__real_expression, STATE 660), (sym_throw_expression, STATE 908),
     (sym_rethrow_expression, STATE 908), (sym_assignment_expression, STATE 908),
     (sym_assignable_expression, STATE 1940), (sym_function_expression, STATE 962),
     (sym_if_null_expression, STATE 1477), (sym_conditional_expression, STATE 1477),
     (sym_logical_or_expression, STATE 1477), (sym_logical_and_expression, STATE 1477),
     (sym_equality_expression, STATE 1477), (sym_type_cast_expression, STATE 1477),
     (sym_type_test_expression, STATE 1477), (sym_relational_expression, STATE 1477),
     (sym_bitwise_or_expression, STATE 1477), (sym_bitwise_xor_expression, STATE 1477),
     (sym_bitwise_and_expression, STATE 1477), (sym_shift_expression, STATE 1477),
     (sym_additive_expression, STATE 1477), (sym_multiplicative_expression, STATE 1477),
     (sym__unary_expression, STATE 1121), (sym_unary_expression, STATE 1303),
     (sym__postfix_expression, STATE 1303), (sym_postfix_expression, STATE 1301),
     (sym_spread_element, STATE 2660), (sym_prefix_operator, STATE 431),
     (sym_negation_operator, STATE 1450), (sym__exclamation_operator, STATE 1451),
     (sym_tilde_operator, STATE 1385), (sym_await_expression, STATE 1302),
     (sym_new_expression, STATE 962), (sym_const_object_expression, STATE 962),
     (sym__primary, STATE 668), (sym_parenthesized_expression, STATE 962),
     (sym_constructor_invocation, STATE 643), (sym_constructor_tearoff, STATE 962),
     (sym_type_arguments, STATE 3200), (sym_switch_expression, STATE 962),
     (sym__parenthesized_pattern, STATE 3182), (sym_list_pattern, STATE 3182),
     (sym_map_pattern, STATE 3182), (sym_record_pattern, STATE 3182),
     (sym_object_pattern, STATE 3182), (sym__outer_pattern, STATE 3410),
     (sym_pattern_assignment, STATE 908), (sym_if_element, STATE 2660),
     (sym_for_element, STATE 2660), (sym_type_parameters, STATE 2932),
     (sym__type_name, STATE 2661), (sym__formal_parameter_part, STATE 2339),
     (sym_formal_parameter_list, STATE 2020), (sym__strict_formal_parameter_list, STATE 2016),
     (sym__new_builtin, STATE 2079), (sym_this, STATE 962), (sym_super, STATE 1337),
     (sym_comment, STATE 140), (sym_documentation_comment, STATE 140),
     (aux_sym_string_literal_repeat1, STATE 474), (sym_identifier, ACTIONS 494),
     (anon_sym_POUND, ACTIONS 73), (sym_decimal_integer_literal, ACTIONS 75),
     (sym_hex_integer_literal, ACTIONS 77), (sym_decimal_floating_point_literal, ACTIONS 75),
     (anon_sym_true, ACTIONS 79), (anon_sym_false, ACTIONS 81), (anon_sym_DQUOTE, ACTIONS 83),
     (anon_sym_SQUOTE, ACTIONS 85), (anon_sym_DQUOTE_DQUOTE_DQUOTE, ACTIONS 87),
     (anon_sym_SQUOTE_SQUOTE_SQUOTE, ACTIONS 89), (anon_sym_r_DQUOTE, ACTIONS 91),
     (anon_sym_r_SQUOTE, ACTIONS 93), (anon_sym_r_DQUOTE_DQUOTE_DQUOTE, ACTIONS 95),
     (anon_sym_r_SQUOTE_SQUOTE_SQUOTE, ACTIONS 97), (anon_sym_LBRACE, ACTIONS 442),
     (anon_sym_RBRACE, ACTIONS 610), (anon_sym_LBRACK, ACTIONS 103),
     (anon_sym_null, ACTIONS 105), (anon_sym_LPAREN, ACTIONS 498), (anon_sym_throw, ACTIONS 109),
     (anon_sym_LT, ACTIONS 111), (sym_increment_operator, ACTIONS 113),
     (anon_sym_DOT_DOT_DOT, ACTIONS 167), (sym_minus_operator, ACTIONS 117),
     (anon_sym_BANG, ACTIONS 119), (anon_sym_TILDE, ACTIONS 121), (anon_sym_await, ACTIONS 410),
     (anon_sym_switch, ACTIONS 412), (anon_sym_if, ACTIONS 414), (anon_sym_for, ACTIONS 416),
     (sym_rethrow_builtin, ACTIONS 151), (anon_sym_new, ACTIONS 155),
     (sym_const_builtin, ACTIONS 478), (anon_sym_this, ACTIONS 159),
     (anon_sym_super, ACTIONS 161), (anon_sym_SLASH_SLASH, ACTIONS 3),
     (anon_sym_SLASH_STAR, ACTIONS 5), (anon_sym_SLASH_SLASH_SLASH, ACTIONS 7),
     (sym__block_comment, ACTIONS 9), (sym__documentation_block_comment, ACTIONS 11)]"

lemma row_ok_140: "table_row_ok 140 ts_parse_table_140"
  by (simp add: row_simps ts_parse_table_140_def)

definition ts_parse_table_141 :: table_row where
  "ts_parse_table_141 = [
     (sym__bool_literal, STATE 989), (sym__numeric_literal, STATE 989),
     (sym__literal, STATE 962), (sym_symbol_literal, STATE 989), (sym_true, STATE 900),
     (sym_false, STATE 900), (sym_string_literal, STATE 989),
     (sym__string_literal_double_quotes, STATE 627),
     (sym__string_literal_single_quotes, STATE 627),
     (sym__string_literal_double_quotes_multiple, STATE 627),
     (sym__string_literal_single_quotes_multiple, STATE 627),
     (sym__raw_string_literal_double_quotes, STATE 627),
     (sym__raw_string_literal_single_quotes, STATE 627),
     (sym__raw_string_literal_double_quotes_multiple, STATE 627),
     (sym__raw_string_literal_single_quotes_multiple, STATE 627), (sym_list_literal, STATE 989),
     (sym_set_or_map_literal, STATE 989), (sym_pair, STATE 2660), (sym__element, STATE 2954),
     (sym_null_literal, STATE 989), (sym_record_literal, STATE 989),
     (sym__record_literal_no_const, STATE 924), (sym__expression, STATE 2562),
     (sym__real_expression, STATE 660), (sym_throw_expression, STATE 908),
     (sym_rethrow_expression, STATE 908), (sym_assignment_expression, STATE 908),
     (sym_assignable_expression, STATE 1940), (sym_function_expression, STATE 962),
     (sym_if_null_expression, STATE 1477), (sym_conditional_expression, STATE 1477),
     (sym_logical_or_expression, STATE 1477), (sym_logical_and_expression, STATE 1477),
     (sym_equality_expression, STATE 1477), (sym_type_cast_expression, STATE 1477),
     (sym_type_test_expression, STATE 1477), (sym_relational_expression, STATE 1477),
     (sym_bitwise_or_expression, STATE 1477), (sym_bitwise_xor_expression, STATE 1477),
     (sym_bitwise_and_expression, STATE 1477), (sym_shift_expression, STATE 1477),
     (sym_additive_expression, STATE 1477), (sym_multiplicative_expression, STATE 1477),
     (sym__unary_expression, STATE 1121), (sym_unary_expression, STATE 1303),
     (sym__postfix_expression, STATE 1303), (sym_postfix_expression, STATE 1301),
     (sym_spread_element, STATE 2660), (sym_prefix_operator, STATE 431),
     (sym_negation_operator, STATE 1450), (sym__exclamation_operator, STATE 1451),
     (sym_tilde_operator, STATE 1385), (sym_await_expression, STATE 1302),
     (sym_new_expression, STATE 962), (sym_const_object_expression, STATE 962),
     (sym__primary, STATE 668), (sym_parenthesized_expression, STATE 962),
     (sym_constructor_invocation, STATE 643), (sym_constructor_tearoff, STATE 962),
     (sym_type_arguments, STATE 3200), (sym_switch_expression, STATE 962),
     (sym__parenthesized_pattern, STATE 3182), (sym_list_pattern, STATE 3182),
     (sym_map_pattern, STATE 3182), (sym_record_pattern, STATE 3182),
     (sym_object_pattern, STATE 3182), (sym__outer_pattern, STATE 3410),
     (sym_pattern_assignment, STATE 908), (sym_if_element, STATE 2660),
     (sym_for_element, STATE 2660), (sym_type_parameters, STATE 2932),
     (sym__type_name, STATE 2661), (sym__formal_parameter_part, STATE 2339),
     (sym_formal_parameter_list, STATE 2020), (sym__strict_formal_parameter_list, STATE 2016),
     (sym__new_builtin, STATE 2079), (sym_this, STATE 962), (sym_super, STATE 1337),
     (sym_comment, STATE 141), (sym_documentation_comment, STATE 141),
     (aux_sym_string_literal_repeat1, STATE 474), (sym_identifier, ACTIONS 494),
     (anon_sym_POUND, ACTIONS 73), (sym_decimal_integer_literal, ACTIONS 75),
     (sym_hex_integer_literal, ACTIONS 77), (sym_decimal_floating_point_literal, ACTIONS 75),
     (anon_sym_true, ACTIONS 79), (anon_sym_false, ACTIONS 81), (anon_sym_DQUOTE, ACTIONS 83),
     (anon_sym_SQUOTE, ACTIONS 85), (anon_sym_DQUOTE_DQUOTE_DQUOTE, ACTIONS 87),
     (anon_sym_SQUOTE_SQUOTE_SQUOTE, ACTIONS 89), (anon_sym_r_DQUOTE, ACTIONS 91),
     (anon_sym_r_SQUOTE, ACTIONS 93), (anon_sym_r_DQUOTE_DQUOTE_DQUOTE, ACTIONS 95),
     (anon_sym_r_SQUOTE_SQUOTE_SQUOTE, ACTIONS 97), (anon_sym_LBRACE, ACTIONS 442),
     (anon_sym_LBRACK, ACTIONS 103), (anon_sym_RBRACK, ACTIONS 526),
     (anon_sym_null, ACTIONS 105), (anon_sym_LPAREN, ACTIONS 498), (anon_sym_throw, ACTIONS 109),
     (anon_sym_LT, ACTIONS 111), (sym_increment_operator, ACTIONS 113),
     (anon_sym_DOT_DOT_DOT, ACTIONS 167), (sym_minus_operator, ACTIONS 117),
     (anon_sym_BANG, ACTIONS 119), (anon_sym_TILDE, ACTIONS 121), (anon_sym_await, ACTIONS 410),
     (anon_sym_switch, ACTIONS 412), (anon_sym_if, ACTIONS 414), (anon_sym_for, ACTIONS 416),
     (sym_rethrow_builtin, ACTIONS 151), (anon_sym_new, ACTIONS 155),
     (sym_const_builtin, ACTIONS 478), (anon_sym_this, ACTIONS 159),
     (anon_sym_super, ACTIONS 161), (anon_sym_SLASH_SLASH, ACTIONS 3),
     (anon_sym_SLASH_STAR, ACTIONS 5), (anon_sym_SLASH_SLASH_SLASH, ACTIONS 7),
     (sym__block_comment, ACTIONS 9), (sym__documentation_block_comment, ACTIONS 11)]"

lemma row_ok_141: "table_row_ok 141 ts_parse_table_141"
  by (simp add: row_simps ts_parse_table_141_def)

definition ts_parse_table_142 :: table_row where
  "ts_parse_table_142 = [
     (sym__bool_literal, STATE 989), (sym__numeric_literal, STATE 989),
     (sym__literal, STATE 962), (sym_symbol_literal, STATE 989), (sym_true, STATE 900),
     (sym_false, STATE 900), (sym_string_literal, STATE 989),
     (sym__string_literal_double_quotes, STATE 627),
     (sym__string_literal_single_quotes, STATE 627),
     (sym__string_literal_double_quotes_multiple, STATE 627),
     (sym__string_literal_single_quotes_multiple, STATE 627),
     (sym__raw_string_literal_double_quotes, STATE 627),
     (sym__raw_string_literal_single_quotes, STATE 627),
     (sym__raw_string_literal_double_quotes_multiple, STATE 627),
     (sym__raw_string_literal_single_quotes_multiple, STATE 627), (sym_list_literal, STATE 989),
     (sym_set_or_map_literal, STATE 989), (sym_pair, STATE 2660), (sym__element, STATE 2838),
     (sym_null_literal, STATE 989), (sym_record_literal, STATE 989),
     (sym__record_literal_no_const, STATE 924), (sym__expression, STATE 2562),
     (sym__real_expression, STATE 660), (sym_throw_expression, STATE 908),
     (sym_rethrow_expression, STATE 908), (sym_assignment_expression, STATE 908),
     (sym_assignable_expression, STATE 1940), (sym_function_expression, STATE 962),
     (sym_if_null_expression, STATE 1477), (sym_conditional_expression, STATE 1477),
     (sym_logical_or_expression, STATE 1477), (sym_logical_and_expression, STATE 1477),
     (sym_equality_expression, STATE 1477), (sym_type_cast_expression, STATE 1477),
     (sym_type_test_expression, STATE 1477), (sym_relational_expression, STATE 1477),
     (sym_bitwise_or_expression, STATE 1477), (sym_bitwise_xor_expression, STATE 1477),
     (sym_bitwise_and_expression, STATE 1477), (sym_shift_expression, STATE 1477),
     (sym_additive_expression, STATE 1477), (sym_multiplicative_expression, STATE 1477),
     (sym__unary_expression, STATE 1121), (sym_unary_expression, STATE 1303),
     (sym__postfix_expression, STATE 1303), (sym_postfix_expression, STATE 1301),
     (sym_spread_element, STATE 2660), (sym_prefix_operator, STATE 431),
     (sym_negation_operator, STATE 1450), (sym__exclamation_operator, STATE 1451),
     (sym_tilde_operator, STATE 1385), (sym_await_expression, STATE 1302),
     (sym_new_expression, STATE 962), (sym_const_object_expression, STATE 962),
     (sym__primary, STATE 668), (sym_parenthesized_expression, STATE 962),
     (sym_constructor_invocation, STATE 643), (sym_constructor_tearoff, STATE 962),
     (sym_type_arguments, STATE 3200), (sym_switch_expression, STATE 962),
     (sym__parenthesized_pattern, STATE 3182), (sym_list_pattern, STATE 3182),
     (sym_map_pattern, STATE 3182), (sym_record_pattern, STATE 3182),
     (sym_object_pattern, STATE 3182), (sym__outer_pattern, STATE 3410),
     (sym_pattern_assignment, STATE 908), (sym_if_element, STATE 2660),
     (sym_for_element, STATE 2660), (sym_type_parameters, STATE 2932),
     (sym__type_name, STATE 2661), (sym__formal_parameter_part, STATE 2339),
     (sym_formal_parameter_list, STATE 2020), (sym__strict_formal_parameter_list, STATE 2016),
     (sym__new_builtin, STATE 2079), (sym_this, STATE 962), (sym_super, STATE 1337),
     (sym_comment, STATE 142), (sym_documentation_comment, STATE 142),
     (aux_sym_string_literal_repeat1, STATE 474), (sym_identifier, ACTIONS 494),
     (anon_sym_POUND, ACTIONS 73), (sym_decimal_integer_literal, ACTIONS 75),
     (sym_hex_integer_literal, ACTIONS 77), (sym_decimal_floating_point_literal, ACTIONS 75),
     (anon_sym_true, ACTIONS 79), (anon_sym_false, ACTIONS 81), (anon_sym_DQUOTE, ACTIONS 83),
     (anon_sym_SQUOTE, ACTIONS 85), (anon_sym_DQUOTE_DQUOTE_DQUOTE, ACTIONS 87),
     (anon_sym_SQUOTE_SQUOTE_SQUOTE, ACTIONS 89), (anon_sym_r_DQUOTE, ACTIONS 91),
     (anon_sym_r_SQUOTE, ACTIONS 93), (anon_sym_r_DQUOTE_DQUOTE_DQUOTE, ACTIONS 95),
     (anon_sym_r_SQUOTE_SQUOTE_SQUOTE, ACTIONS 97), (anon_sym_LBRACE, ACTIONS 442),
     (anon_sym_LBRACK, ACTIONS 103), (anon_sym_RBRACK, ACTIONS 606),
     (anon_sym_null, ACTIONS 105), (anon_sym_LPAREN, ACTIONS 498), (anon_sym_throw, ACTIONS 109),
     (anon_sym_LT, ACTIONS 111), (sym_increment_operator, ACTIONS 113),
     (anon_sym_DOT_DOT_DOT, ACTIONS 167), (sym_minus_operator, ACTIONS 117),
     (anon_sym_BANG, ACTIONS 119), (anon_sym_TILDE, ACTIONS 121), (anon_sym_await, ACTIONS 410),
     (anon_sym_switch, ACTIONS 412), (anon_sym_if, ACTIONS 414), (anon_sym_for, ACTIONS 416),
     (sym_rethrow_builtin, ACTIONS 151), (anon_sym_new, ACTIONS 155),
     (sym_const_builtin, ACTIONS 478), (anon_sym_this, ACTIONS 159),
     (anon_sym_super, ACTIONS 161), (anon_sym_SLASH_SLASH, ACTIONS 3),
     (anon_sym_SLASH_STAR, ACTIONS 5), (anon_sym_SLASH_SLASH_SLASH, ACTIONS 7),
     (sym__block_comment, ACTIONS 9), (sym__documentation_block_comment, ACTIONS 11)]"

lemma row_ok_142: "table_row_ok 142 ts_parse_table_142"
  by (simp add: row_simps ts_parse_table_142_def)

definition ts_parse_table_143 :: table_row where
  "ts_parse_table_143 = [
     (sym__bool_literal, STATE 989), (sym__numeric_literal, STATE 989),
     (sym__literal, STATE 962), (sym_symbol_literal, STATE 989), (sym_true, STATE 900),
     (sym_false, STATE 900), (sym_string_literal, STATE 989),
     (sym__string_literal_double_quotes, STATE 627),
     (sym__string_literal_single_quotes, STATE 627),
     (sym__string_literal_double_quotes_multiple, STATE 627),
     (sym__string_literal_single_quotes_multiple, STATE 627),
     (sym__raw_string_literal_double_quotes, STATE 627),
     (sym__raw_string_literal_single_quotes, STATE 627),
     (sym__raw_string_literal_double_quotes_multiple, STATE 627),
     (sym__raw_string_literal_single_quotes_multiple, STATE 627), (sym_list_literal, STATE 989),
     (sym_set_or_map_literal, STATE 989), (sym_pair, STATE 2660), (sym__element, STATE 2838),
     (sym_null_literal, STATE 989), (sym_record_literal, STATE 989),
     (sym__record_literal_no_const, STATE 924), (sym__expression, STATE 2562),
     (sym__real_expression, STATE 660), (sym_throw_expression, STATE 908),
     (sym_rethrow_expression, STATE 908), (sym_assignment_expression, STATE 908),
     (sym_assignable_expression, STATE 1940), (sym_function_expression, STATE 962),
     (sym_if_null_expression, STATE 1477), (sym_conditional_expression, STATE 1477),
     (sym_logical_or_expression, STATE 1477), (sym_logical_and_expression, STATE 1477),
     (sym_equality_expression, STATE 1477), (sym_type_cast_expression, STATE 1477),
     (sym_type_test_expression, STATE 1477), (sym_relational_expression, STATE 1477),
     (sym_bitwise_or_expression, STATE 1477), (sym_bitwise_xor_expression, STATE 1477),
     (sym_bitwise_and_expression, STATE 1477), (sym_shift_expression, STATE 1477),
     (sym_additive_expression, STATE 1477), (sym_multiplicative_expression, STATE 1477),
     (sym__unary_expression, STATE 1121), (sym_unary_expression, STATE 1303),
     (sym__postfix_expression, STATE 1303), (sym_postfix_expression, STATE 1301),
     (sym_spread_element, STATE 2660), (sym_prefix_operator, STATE 431),
     (sym_negation_operator, STATE 1450), (sym__exclamation_operator, STATE 1451),
     (sym_tilde_operator, STATE 1385), (sym_await_expression, STATE 1302),
     (sym_new_expression, STATE 962), (sym_const_object_expression, STATE 962),
     (sym__primary, STATE 668), (sym_parenthesized_expression, STATE 962),
     (sym_constructor_invocation, STATE 643), (sym_constructor_tearoff, STATE 962),
     (sym_type_arguments, STATE 3200), (sym_switch_expression, STATE 962),
     (sym__parenthesized_pattern, STATE 3182), (sym_list_pattern, STATE 3182),
     (sym_map_pattern, STATE 3182), (sym_record_pattern, STATE 3182),
     (sym_object_pattern, STATE 3182), (sym__outer_pattern, STATE 3410),
     (sym_pattern_assignment, STATE 908), (sym_if_element, STATE 2660),
     (sym_for_element, STATE 2660), (sym_type_parameters, STATE 2932),
     (sym__type_name, STATE 2661), (sym__formal_parameter_part, STATE 2339),
     (sym_formal_parameter_list, STATE 2020), (sym__strict_formal_parameter_list, STATE 2016),
     (sym__new_builtin, STATE 2079), (sym_this, STATE 962), (sym_super, STATE 1337),
     (sym_comment, STATE 143), (sym_documentation_comment, STATE 143),
     (aux_sym_string_literal_repeat1, STATE 474), (sym_identifier, ACTIONS 494),
     (anon_sym_POUND, ACTIONS 73), (sym_decimal_integer_literal, ACTIONS 75),
     (sym_hex_integer_literal, ACTIONS 77), (sym_decimal_floating_point_literal, ACTIONS 75),
     (anon_sym_true, ACTIONS 79), (anon_sym_false, ACTIONS 81), (anon_sym_DQUOTE, ACTIONS 83),
     (anon_sym_SQUOTE, ACTIONS 85), (anon_sym_DQUOTE_DQUOTE_DQUOTE, ACTIONS 87),
     (anon_sym_SQUOTE_SQUOTE_SQUOTE, ACTIONS 89), (anon_sym_r_DQUOTE, ACTIONS 91),
     (anon_sym_r_SQUOTE, ACTIONS 93), (anon_sym_r_DQUOTE_DQUOTE_DQUOTE, ACTIONS 95),
     (anon_sym_r_SQUOTE_SQUOTE_SQUOTE, ACTIONS 97), (anon_sym_LBRACE, ACTIONS 442),
     (anon_sym_RBRACE, ACTIONS 610), (anon_sym_LBRACK, ACTIONS 103),
     (anon_sym_null, ACTIONS 105), (anon_sym_LPAREN, ACTIONS 498), (anon_sym_throw, ACTIONS 109),
     (anon_sym_LT, ACTIONS 111), (sym_increment_operator, ACTIONS 113),
     (anon_sym_DOT_DOT_DOT, ACTIONS 167), (sym_minus_operator, ACTIONS 117),
     (anon_sym_BANG, ACTIONS 119), (anon_sym_TILDE, ACTIONS 121), (anon_sym_await, ACTIONS 410),
     (anon_sym_switch, ACTIONS 412), (anon_sym_if, ACTIONS 414), (anon_sym_for, ACTIONS 416),
     (sym_rethrow_builtin, ACTIONS 151), (anon_sym_new, ACTIONS 155),
     (sym_const_builtin, ACTIONS 478), (anon_sym_this, ACTIONS 159),
     (anon_sym_super, ACTIONS 161), (anon_sym_SLASH_SLASH, ACTIONS 3),
     (anon_sym_SLASH_STAR, ACTIONS 5), (anon_sym_SLASH_SLASH_SLASH, ACTIONS 7),
     (sym__block_comment, ACTIONS 9), (sym__documentation_block_comment, ACTIONS 11)]"

lemma row_ok_143: "table_row_ok 143 ts_parse_table_143"
  by (simp add: row_simps ts_parse_table_143_def)

definition ts_parse_table_144 :: table_row where
  "ts_parse_table_144 = [
     (sym__bool_literal, STATE 989), (sym__numeric_literal, STATE 989),
     (sym__literal, STATE 962), (sym_symbol_literal, STATE 989), (sym_true, STATE 900),
     (sym_false, STATE 900), (sym_string_literal, STATE 989),
     (sym__string_literal_double_quotes, STATE 627),
     (sym__string_literal_single_quotes, STATE 627),
     (sym__string_literal_double_quotes_multiple, STATE 627),
     (sym__string_literal_single_quotes_multiple, STATE 627),
     (sym__raw_string_literal_double_quotes, STATE 627),
     (sym__raw_string_literal_single_quotes, STATE 627),
     (sym__raw_string_literal_double_quotes_multiple, STATE 627),
     (sym__raw_string_literal_single_quotes_multiple, STATE 627), (sym_list_literal, STATE 989),
     (sym_set_or_map_literal, STATE 989), (sym_pair, STATE 2660), (sym__element, STATE 2838),
     (sym_null_literal, STATE 989), (sym_record_literal, STATE 989),
     (sym__record_literal_no_const, STATE 924), (sym__expression, STATE 2562),
     (sym__real_expression, STATE 660), (sym_throw_expression, STATE 908),
     (sym_rethrow_expression, STATE 908), (sym_assignment_expression, STATE 908),
     (sym_assignable_expression, STATE 1940), (sym_function_expression, STATE 962),
     (sym_if_null_expression, STATE 1477), (sym_conditional_expression, STATE 1477),
     (sym_logical_or_expression, STATE 1477), (sym_logical_and_expression, STATE 1477),
     (sym_equality_expression, STATE 1477), (sym_type_cast_expression, STATE 1477),
     (sym_type_test_expression, STATE 1477), (sym_relational_expression, STATE 1477),
     (sym_bitwise_or_expression, STATE 1477), (sym_bitwise_xor_expression, STATE 1477),
     (sym_bitwise_and_expression, STATE 1477), (sym_shift_expression, STATE 1477),
     (sym_additive_expression, STATE 1477), (sym_multiplicative_expression, STATE 1477),
     (sym__unary_expression, STATE 1121), (sym_unary_expression, STATE 1303),
     (sym__postfix_expression, STATE 1303), (sym_postfix_expression, STATE 1301),
     (sym_spread_element, STATE 2660), (sym_prefix_operator, STATE 431),
     (sym_negation_operator, STATE 1450), (sym__exclamation_operator, STATE 1451),
     (sym_tilde_operator, STATE 1385), (sym_await_expression, STATE 1302),
     (sym_new_expression, STATE 962), (sym_const_object_expression, STATE 962),
     (sym__primary, STATE 668), (sym_parenthesized_expression, STATE 962),
     (sym_constructor_invocation, STATE 643), (sym_constructor_tearoff, STATE 962),
     (sym_type_arguments, STATE 3200), (sym_switch_expression, STATE 962),
     (sym__parenthesized_pattern, STATE 3182), (sym_list_pattern, STATE 3182),
     (sym_map_pattern, STATE 3182), (sym_record_pattern, STATE 3182),
     (sym_object_pattern, STATE 3182), (sym__outer_pattern, STATE 3410),
     (sym_pattern_assignment, STATE 908), (sym_if_element, STATE 2660),
     (sym_for_element, STATE 2660), (sym_type_parameters, STATE 2932),
     (sym__type_name, STATE 2661), (sym__formal_parameter_part, STATE 2339),
     (sym_formal_parameter_list, STATE 2020), (sym__strict_formal_parameter_list, STATE 2016),
     (sym__new_builtin, STATE 2079), (sym_this, STATE 962), (sym_super, STATE 1337),
     (sym_comment, STATE 144), (sym_documentation_comment, STATE 144),
     (aux_sym_string_literal_repeat1, STATE 474), (sym_identifier, ACTIONS 494),
     (anon_sym_POUND, ACTIONS 73), (sym_decimal_integer_literal, ACTIONS 75),
     (sym_hex_integer_literal, ACTIONS 77), (sym_decimal_floating_point_literal, ACTIONS 75),
     (anon_sym_true, ACTIONS 79), (anon_sym_false, ACTIONS 81), (anon_sym_DQUOTE, ACTIONS 83),
     (anon_sym_SQUOTE, ACTIONS 85), (anon_sym_DQUOTE_DQUOTE_DQUOTE, ACTIONS 87),
     (anon_sym_SQUOTE_SQUOTE_SQUOTE, ACTIONS 89), (anon_sym_r_DQUOTE, ACTIONS 91),
     (anon_sym_r_SQUOTE, ACTIONS 93), (anon_sym_r_DQUOTE_DQUOTE_DQUOTE, ACTIONS 95),
     (anon_sym_r_SQUOTE_SQUOTE_SQUOTE, ACTIONS 97), (anon_sym_LBRACE, ACTIONS 442),
     (anon_sym_RBRACE, ACTIONS 612), (anon_sym_LBRACK, ACTIONS 103),
     (anon_sym_null, ACTIONS 105), (anon_sym_LPAREN, ACTIONS 498), (anon_sym_throw, ACTIONS 109),
     (anon_sym_LT, ACTIONS 111), (sym_increment_operator, ACTIONS 113),
     (anon_sym_DOT_DOT_DOT, ACTIONS 167), (sym_minus_operator, ACTIONS 117),
     (anon_sym_BANG, ACTIONS 119), (anon_sym_TILDE, ACTIONS 121), (anon_sym_await, ACTIONS 410),
     (anon_sym_switch, ACTIONS 412), (anon_sym_if, ACTIONS 414), (anon_sym_for, ACTIONS 416),
     (sym_rethrow_builtin, ACTIONS 151), (anon_sym_new, ACTIONS 155),
     (sym_const_builtin, ACTIONS 478), (anon_sym_this, ACTIONS 159),
     (anon_sym_super, ACTIONS 161), (anon_sym_SLASH_SLASH, ACTIONS 3),
     (anon_sym_SLASH_STAR, ACTIONS 5), (anon_sym_SLASH_SLASH_SLASH, ACTIONS 7),
     (sym__block_comment, ACTIONS 9), (sym__documentation_block_comment, ACTIONS 11)]"

lemma row_ok_144: "table_row_ok 144 ts_parse_table_144"
  by (simp add: row_simps ts_parse_table_144_def)

definition ts_parse_table_rows_3 :: "(TSStateId \<times> table_row) list" where
  "ts_parse_table_rows_3 = [
     (88, ts_parse_table_88), (89, ts_parse_table_89), (90, ts_parse_table_90),
     (91, ts_parse_table_91), (92, ts_parse_table_92), (93, ts_parse_table_93),
     (94, ts_parse_table_94), (95, ts_parse_table_95), (96, ts_parse_table_96),
     (97, ts_parse_table_97), (98, ts_parse_table_98), (99, ts_parse_table_99),
     (100, ts_parse_table_100), (101, ts_parse_table_101), (102, ts_parse_table_102),
     (103, ts_parse_table_103), (104, ts_parse_table_104), (105, ts_parse_table_105),
     (106, ts_parse_table_106), (107, ts_parse_table_107), (108, ts_parse_table_108),
     (109, ts_parse_table_109), (110, ts_parse_table_110), (111, ts_parse_table_111),
     (112, ts_parse_table_112), (113, ts_parse_table_113), (114, ts_parse_table_114),
     (115, ts_parse_table_115), (116, ts_parse_table_116), (117, ts_parse_table_117),
     (118, ts_parse_table_118), (119, ts_parse_table_119), (120, ts_parse_table_120),
     (121, ts_parse_table_121), (122, ts_parse_table_122), (123, ts_parse_table_123),
     (124, ts_parse_table_124), (125, ts_parse_table_125), (126, ts_parse_table_126),
     (127, ts_parse_table_127), (128, ts_parse_table_128), (129, ts_parse_table_129),
     (130, ts_parse_table_130), (131, ts_parse_table_131), (132, ts_parse_table_132),
     (133, ts_parse_table_133), (134, ts_parse_table_134), (135, ts_parse_table_135),
     (136, ts_parse_table_136), (137, ts_parse_table_137), (138, ts_parse_table_138),
     (139, ts_parse_table_139), (140, ts_parse_table_140), (141, ts_parse_table_141),
     (142, ts_parse_table_142), (143, ts_parse_table_143), (144, ts_parse_table_144)]"

lemma rows_ok_3: "list_all (\<lambda>(s, es). table_row_ok s es) ts_parse_table_rows_3"
  by (simp add: ts_parse_table_rows_3_def
    row_ok_88 row_ok_89 row_ok_90 row_ok_91 row_ok_92 row_ok_93 row_ok_94 row_ok_95 row_ok_96
    row_ok_97 row_ok_98 row_ok_99 row_ok_100 row_ok_101 row_ok_102 row_ok_103 row_ok_104 row_ok_105
    row_ok_106 row_ok_107 row_ok_108 row_ok_109 row_ok_110 row_ok_111 row_ok_112 row_ok_113 row_ok_114
    row_ok_115 row_ok_116 row_ok_117 row_ok_118 row_ok_119 row_ok_120 row_ok_121 row_ok_122 row_ok_123
    row_ok_124 row_ok_125 row_ok_126 row_ok_127 row_ok_128 row_ok_129 row_ok_130 row_ok_131 row_ok_132
    row_ok_133 row_ok_134 row_ok_135 row_ok_136 row_ok_137 row_ok_138 row_ok_139 row_ok_140 row_ok_141
    row_ok_142 row_ok_143 row_ok_144)

lemma row_keys_3: "map fst ts_parse_table_rows_3 = [88..<145]"
  by (simp add: ts_parse_table_rows_3_def upt_from_0)

end
