(* ===== verification/Dart_Rows_4.thy ===== *)
theory Dart_Rows_4
  imports Dart_Items
begin

text \<open>
  The rows 145 to 203 of \<^verbatim>\<open>ts_parse_table\<close>, each with the check of its entries.
\<close>

definition ts_parse_table_145 :: table_row where
  "ts_parse_table_145 = [
     (sym__bool_literal, STATE 989), (sym__numeric_literal, STATE 989),
     (sym__literal, STATE 962), (sym_symbol_literal, STATE 989), (sym_true, STATE 900),
     (sym_false, STATE 900), (sym_string_literal, STATE 989),
     (sym__string_literal_double_quotes, STATE 627),
     (sym__string_literal_single_quotes, STATE 627),
     (sym__string_literal_double_quotes_multiple, STATE 627),
     (sym__string_literal_single_quotes_multiple, STATE 627),
     (sym__raw_string_literal_double_quotes, STATE 627),
     (sym__raw_string_literal_single_quotes, STATE 627),
     (sym__raw_string_literal_double_quotes_multiple, STATE 627),
     (sym__raw_string_literal_single_quotes_multiple, STATE 627), (sym_list_literal, STATE 989),
     (sym_set_or_map_literal, STATE 989), (sym_pair, STATE 2660), (sym__element, STATE 2838),
     (sym_null_literal, STATE 989), (sym_record_literal, STATE 989),
     (sym__record_literal_no_const, STATE 924), (sym__expression, STATE 2562),
     (sym__real_expression, STATE 660), (sym_throw_expression, STATE 908),
     (sym_rethrow_expression, STATE 908), (sym_assignment_expression, STATE 908),
     (sym_assignable_expression, STATE 1940), (sym_function_expression, STATE 962),
     (sym_if_null_expression, STATE 1477), (sym_conditional_expression, STATE 1477),
     (sym_logical_or_expression, STATE 1477), (sym_logical_and_expression, STATE 1477),
     (sym_equality_expression, STATE 1477), (sym_type_cast_expression, STATE 1477),
     (sym_type_test_expression, STATE 1477), (sym_relational_expression, STATE 1477),
     (sym_bitwise_or_expression, STATE 1477), (sym_bitwise_xor_expression, STATE 1477),
     (sym_bitwise_and_expression, STATE 1477), (sym_shift_expression, STATE 1477),
     (sym_additive_expression, STATE 1477), (sym_multiplicative_expression, STATE 1477),
     (sym__unary_expression, STATE 1121), (sym_unary_expression, STATE 1303),
     (sym__postfix_expression, STATE 1303), (sym_postfix_expression, STATE 1301),
     (sym_spread_element, STATE 2660), (sym_prefix_operator, STATE 431),
     (sym_negation_operator, STATE 1450), (sym__exclamation_operator, STATE 1451),
     (sym_tilde_operator, STATE 1385), (sym_await_expression, STATE 1302),
     (sym_new_expression, STATE 962), (sym_const_object_expression, STATE 962),
     (sym__primary, STATE 668), (sym_parenthesized_expression, STATE 962),
     (sym_constructor_invocation, STATE 643), (sym_constructor_tearoff, STATE 962),
     (sym_type_arguments, STATE 3200), (sym_switch_expression, STATE 962),
     (sym__parenthesized_pattern, STATE 3182), (sym_list_pattern, STATE 3182),
     (sym_map_pattern, STATE 3182), (sym_record_pattern, STATE 3182),
     (sym_object_pattern, STATE 3182), (sym__outer_pattern, STATE 3410),
     (sym_pattern_assignment, STATE 908), (sym_if_element, STATE 2660),
     (sym_for_element, STATE 2660), (sym_type_parameters, STATE 2932),
     (sym__type_name, STATE 2661), (sym__formal_parameter_part, STATE 2339),
     (sym_formal_parameter_list, STATE 2020), (sym__strict_formal_parameter_list, STATE 2016),
     (sym__new_builtin, STATE 2079), (sym_this, STATE 962), (sym_super, STATE 1337),
     (sym_comment, STATE 145), (sym_documentation_comment, STATE 145),
     (aux_sym_string_literal_repeat1, STATE 474), (sym_identifier, ACTIONS 494),
     (anon_sym_POUND, ACTIONS 73), (sym_decimal_integer_literal, ACTIONS 75),
     (sym_hex_integer_literal, ACTIONS 77), (sym_decimal_floating_point_literal, ACTIONS 75),
     (anon_sym_true, ACTIONS 79), (anon_sym_false, ACTIONS 81), (anon_sym_DQUOTE, ACTIONS 83),
     (anon_sym_SQUOTE, ACTIONS 85), (anon_sym_DQUOTE_DQUOTE_DQUOTE, ACTIONS 87),
     (anon_sym_SQUOTE_SQUOTE_SQUOTE, ACTIONS 89), (anon_sym_r_DQUOTE, ACTIONS 91),
     (anon_sym_r_SQUOTE, ACTIONS 93), (anon_sym_r_DQUOTE_DQUOTE_DQUOTE, ACTIONS 95),
     (anon_sym_r_SQUOTE_SQUOTE_SQUOTE, ACTIONS 97), (anon_sym_LBRACE, ACTIONS 442),
     (anon_sym_LBRACK, ACTIONS 103), (anon_sym_RBRACK, ACTIONS 612),
     (anon_sym_null, ACTIONS 105), (anon_sym_LPAREN, ACTIONS 498), (anon_sym_throw, ACTIONS 109),
     (anon_sym_LT, ACTIONS 111), (sym_increment_operator, ACTIONS 113),
     (anon_sym_DOT_DOT_DOT, ACTIONS 167), (sym_minus_operator, ACTIONS 117),
     (anon_sym_BANG, ACTIONS 119), (anon_sym_TILDE, ACTIONS 121), (anon_sym_await, ACTIONS 410),
     (anon_sym_switch, ACTIONS 412), (anon_sym_if, ACTIONS 414), (anon_sym_for, ACTIONS 416),
     (sym_rethrow_builtin, ACTIONS 151), (anon_sym_new, ACTIONS 155),
     (sym_const_builtin, ACTIONS 478), (anon_sym_this, ACTIONS 159),
     (anon_sym_super, ACTIONS 161), (anon_sym_SLASH_SLASH, ACTIONS 3),
     (anon_sym_SLASH_STAR, ACTIONS 5), (anon_sym_SLASH_SLASH_SLASH, ACTIONS 7),
     (sym__block_comment, ACTIONS 9), (sym__documentation_block_comment, ACTIONS 11)]"

lemma row_ok_145: "table_row_ok 145 ts_parse_table_145"
  by (simp add: row_simps ts_parse_table_145_def)

definition ts_parse_table_146 :: table_row where
  "ts_parse_table_146 = [
     (sym__bool_literal, STATE 989), (sym__numeric_literal, STATE 989),
     (sym__literal, STATE 962), (sym_symbol_literal, STATE 989), (sym_true, STATE 900),
     (sym_false, STATE 900), (sym_string_literal, STATE 989),
     (sym__string_literal_double_quotes, STATE 627),
     (sym__string_literal_single_quotes, STATE 627),
     (sym__string_literal_double_quotes_multiple, STATE 627),
     (sym__string_literal_single_quotes_multiple, STATE 627),
     (sym__raw_string_literal_double_quotes, STATE 627),
     (sym__raw_string_literal_single_quotes, STATE 627),
     (sym__raw_string_literal_double_quotes_multiple, STATE 627),
     (sym__raw_string_literal_single_quotes_multiple, STATE 627), (sym_list_literal, STATE 989),
     (sym_set_or_map_literal, STATE 989), (sym_pair, STATE 2660), (sym__element, STATE 2838),
     (sym_null_literal, STATE 989), (sym_record_literal, STATE 989),
     (sym__record_literal_no_const, STATE 924), (sym__expression, STATE 2562),
     (sym__real_expression, STATE 660), (sym_throw_expression, STATE 908),
     (sym_rethrow_expression, STATE 908), (sym_assignment_expression, STATE 908),
     (sym_assignable_expression, STATE 1940), (sym_function_expression, STATE 962),
     (sym_if_null_expression, STATE 1477), (sym_conditional_expression, STATE 1477),
     (sym_logical_or_expression, STATE 1477), (sym_logical_and_expression, STATE 1477),
     (sym_equality_expression, STATE 1477), (sym_type_cast_expression, STATE 1477),
     (sym_type_test_expression, STATE 1477), (sym_relational_expression, STATE 1477),
     (sym_bitwise_or_expression, STATE 1477), (sym_bitwise_xor_expression, STATE 1477),
     (sym_bitwise_and_expression, STATE 1477), (sym_shift_expression, STATE 1477),
     (sym_additive_expression, STATE 1477), (sym_multiplicative_expression, STATE 1477),
     (sym__unary_expression, STATE 1121), (sym_unary_expression, STATE 1303),
     (sym__postfix_expression, STATE 1303), (sym_postfix_expression, STATE 1301),
     (sym_spread_element, STATE 2660), (sym_prefix_operator, STATE 431),
     (sym_negation_operator, STATE 1450), (sym__exclamation_operator, STATE 1451),
     (sym_tilde_operator, STATE 1385), (sym_await_expression, STATE 1302),
     (sym_new_expression, STATE 962), (sym_const_object_expression, STATE 962),
     (sym__primary, STATE 668), (sym_parenthesized_expression, STATE 962),
     (sym_constructor_invocation, STATE 643), (sym_constructor_tearoff, STATE 962),
     (sym_type_arguments, STATE 3200), (sym_switch_expression, STATE 962),
     (sym__parenthesized_pattern, STATE 3182), (sym_list_pattern, STATE 3182),
     (sym_map_pattern, STATE 3182), (sym_record_pattern, STATE 3182),
     (sym_object_pattern, STATE 3182), (sym__outer_pattern, STATE 3410),
     (sym_pattern_assignment, STATE 908), (sym_if_element, STATE 2660),
     (sym_for_element, STATE 2660), (sym_type_parameters, STATE 2932),
     (sym__type_name, STATE 2661), (sym__formal_parameter_part, STATE 2339),
     (sym_formal_parameter_list, STATE 2020), (sym__strict_formal_parameter_list, STATE 2016),
     (sym__new_builtin, STATE 2079), (sym_this, STATE 962), (sym_super, STATE 1337),
     (sym_comment, STATE 146), (sym_documentation_comment, STATE 146),
     (aux_sym_string_literal_repeat1, STATE 474), (sym_identifier, ACTIONS 494),
     (anon_sym_POUND, ACTIONS 73), (sym_decimal_integer_literal, ACTIONS 75),
     (sym_hex_integer_literal, ACTIONS 77), (sym_decimal_floating_point_literal, ACTIONS 75),
     (anon_sym_true, ACTIONS 79), (anon_sym_false, ACTIONS 81), (anon_sym_DQUOTE, ACTIONS 83),
     (anon_sym_SQUOTE, ACTIONS 85), (anon_sym_DQUOTE_DQUOTE_DQUOTE, ACTIONS 87),
     (anon_sym_SQUOTE_SQUOTE_SQUOTE, ACTIONS 89), (anon_sym_r_DQUOTE, ACTIONS 91),
     (anon_sym_r_SQUOTE, ACTIONS 93), (anon_sym_r_DQUOTE_DQUOTE_DQUOTE, ACTIONS 95),
     (anon_sym_r_SQUOTE_SQUOTE_SQUOTE, ACTIONS 97), (anon_sym_LBRACE, ACTIONS 442),
     (anon_sym_RBRACE, ACTIONS 614), (anon_sym_LBRACK, ACTIONS 103),
     (anon_sym_null, ACTIONS 105), (anon_sym_LPAREN, ACTIONS 498), (anon_sym_throw, ACTIONS 109),
     (anon_sym_LT, ACTIONS 111), (sym_increment_operator, ACTIONS 113),
     (anon_sym_DOT_DOT_DOT, ACTIONS 167), (sym_minus_operator, ACTIONS 117),
     (anon_sym_BANG, ACTIONS 119), (anon_sym_TILDE, ACTIONS 121), (anon_sym_await, ACTIONS 410),
     (anon_sym_switch, ACTIONS 412), (anon_sym_if, ACTIONS 414), (anon_sym_for, ACTIONS 416),
     (sym_rethrow_builtin, ACTIONS 151), (anon_sym_new, ACTIONS 155),
     (sym_const_builtin, ACTIONS 478), (anon_sym_this, ACTIONS 159),
     (anon_sym_super, ACTIONS 161), (anon_sym_SLASH_SLASH, ACTIONS 3),
     (anon_sym_SLASH_STAR, ACTIONS 5), (anon_sym_SLASH_SLASH_SLASH, ACTIONS 7),
     (sym__block_comment, ACTIONS 9), (sym__documentation_block_comment, ACTIONS 11)]"

lemma row_ok_146: "table_row_ok 146 ts_parse_table_146"
  by (simp add: row_simps ts_parse_table_146_def)

definition ts_parse_table_147 :: table_row where
  "ts_parse_table_147 = [
     (sym__bool_literal, STATE 989), (sym__numeric_literal, STATE 989),
     (sym__literal, STATE 962), (sym_symbol_literal, STATE 989), (sym_true, STATE 900),
     (sym_false, STATE 900), (sym_string_literal, STATE 989),
     (sym__string_literal_double_quotes, STATE 627),
     (sym__string_literal_single_quotes, STATE 627),
     (sym__string_literal_double_quotes_multiple, STATE 627),
     (sym__string_literal_single_quotes_multiple, STATE 627),
     (sym__raw_string_literal_double_quotes, STATE 627),
     (sym__raw_string_literal_single_quotes, STATE 627),
     (sym__raw_string_literal_double_quotes_multiple, STATE 627),
     (sym__raw_string_literal_single_quotes_multiple, STATE 627), (sym_list_literal, STATE 989),
     (sym_set_or_map_literal, STATE 989), (sym_pair, STATE 2660), (sym__element, STATE 2902),
     (sym_null_literal, STATE 989), (sym_record_literal, STATE 989),
     (sym__record_literal_no_const, STATE 924), (sym__expression, STATE 2562),
     (sym__real_expression, STATE 660), (sym_throw_expression, STATE 908),
     (sym_rethrow_expression, STATE 908), (sym_assignment_expression, STATE 908),
     (sym_assignable_expression, STATE 1940), (sym_function_expression, STATE 962),
     (sym_if_null_expression, STATE 1477), (sym_conditional_expression, STATE 1477),
     (sym_logical_or_expression, STATE 1477), (sym_logical_and_expression, STATE 1477),
     (sym_equality_expression, STATE 1477), (sym_type_cast_expression, STATE 1477),
     (sym_type_test_expression, STATE 1477), (sym_relational_expression, STATE 1477),
     (sym_bitwise_or_expression, STATE 1477), (sym_bitwise_xor_expression, STATE 1477),
     (sym_bitwise_and_expression, STATE 1477), (sym_shift_expression, STATE 1477),
     (sym_additive_expression, STATE 1477), (sym_multiplicative_expression, STATE 1477),
     (sym__unary_expression, STATE 1121), (sym_unary_expression, STATE 1303),
     (sym__postfix_expression, STATE 1303), (sym_postfix_expression, STATE 1301),
     (sym_spread_element, STATE 2660), (sym_prefix_operator, STATE 431),
     (sym_negation_operator, STATE 1450), (sym__exclamation_operator, STATE 1451),
     (sym_tilde_operator, STATE 1385), (sym_await_expression, STATE 1302),
     (sym_new_expression, STATE 962), (sym_const_object_expression, STATE 962),
     (sym__primary, STATE 668), (sym_parenthesized_expression, STATE 962),
     (sym_constructor_invocation, STATE 643), (sym_constructor_tearoff, STATE 962),
     (sym_type_arguments, STATE 3200), (sym_switch_expression, STATE 962),
     (sym__parenthesized_pattern, STATE 3182), (sym_list_pattern, STATE 3182),
     (sym_map_pattern, STATE 3182), (sym_record_pattern, STATE 3182),
     (sym_object_pattern, STATE 3182), (sym__outer_pattern, STATE 3410),
     (sym_pattern_assignment, STATE 908), (sym_if_element, STATE 2660),
     (sym_for_element, STATE 2660), (sym_type_parameters, STATE 2932),
     (sym__type_name, STATE 2661), (sym__formal_parameter_part, STATE 2339),
     (sym_formal_parameter_list, STATE 2020), (sym__strict_formal_parameter_list, STATE 2016),
     (sym__new_builtin, STATE 2079), (sym_this, STATE 962), (sym_super, STATE 1337),
     (sym_comment, STATE 147), (sym_documentation_comment, STATE 147),
     (aux_sym_string_literal_repeat1, STATE 474), (sym_identifier, ACTIONS 494),
     (anon_sym_POUND, ACTIONS 73), (sym_decimal_integer_literal, ACTIONS 75),
     (sym_hex_integer_literal, ACTIONS 77), (sym_decimal_floating_point_literal, ACTIONS 75),
     (anon_sym_true, ACTIONS 79), (anon_sym_false, ACTIONS 81), (anon_sym_DQUOTE, ACTIONS 83),
     (anon_sym_SQUOTE, ACTIONS 85), (anon_sym_DQUOTE_DQUOTE_DQUOTE, ACTIONS 87),
     (anon_sym_SQUOTE_SQUOTE_SQUOTE, ACTIONS 89), (anon_sym_r_DQUOTE, ACTIONS 91),
     (anon_sym_r_SQUOTE, ACTIONS 93), (anon_sym_r_DQUOTE_DQUOTE_DQUOTE, ACTIONS 95),
     (anon_sym_r_SQUOTE_SQUOTE_SQUOTE, ACTIONS 97), (anon_sym_LBRACE, ACTIONS 442),
     (anon_sym_LBRACK, ACTIONS 103), (anon_sym_RBRACK, ACTIONS 616),
     (anon_sym_null, ACTIONS 105), (anon_sym_LPAREN, ACTIONS 498), (anon_sym_throw, ACTIONS 109),
     (anon_sym_LT, ACTIONS 111), (sym_increment_operator, ACTIONS 113),
     (anon_sym_DOT_DOT_DOT, ACTIONS 167), (sym_minus_operator, ACTIONS 117),
     (anon_sym_BANG, ACTIONS 119), (anon_sym_TILDE, ACTIONS 121), (anon_sym_await, ACTIONS 410),
     (anon_sym_switch, ACTIONS 412), (anon_sym_if, ACTIONS 414), (anon_sym_for, ACTIONS 416),
     (sym_rethrow_builtin, ACTIONS 151), (anon_sym_new, ACTIONS 155),
     (sym_const_builtin, ACTIONS 478), (anon_sym_this, ACTIONS 159),
     (anon_sym_super, ACTIONS 161), (anon_sym_SLASH_SLASH, ACTIONS 3),
     (anon_sym_SLASH_STAR, ACTIONS 5), (anon_sym_SLASH_SLASH_SLASH, ACTIONS 7),
     (sym__block_comment, ACTIONS 9), (sym__documentation_block_comment, ACTIONS 11)]"

lemma row_ok_147: "table_row_ok 147 ts_parse_table_147"
  by (simp add: row_simps ts_parse_table_147_def)

definition ts_parse_table_148 :: table_row where
  "ts_parse_table_148 = [
     (sym__bool_literal, STATE 989), (sym__numeric_literal, STATE 989),
     (sym__literal, STATE 962), (sym_symbol_literal, STATE 989), (sym_true, STATE 900),
     (sym_false, STATE 900), (sym_string_literal, STATE 989),
     (sym__string_literal_double_quotes, STATE 627),
     (sym__string_literal_single_quotes, STATE 627),
     (sym__string_literal_double_quotes_multiple, STATE 627),
     (sym__string_literal_single_quotes_multiple, STATE 627),
     (sym__raw_string_literal_double_quotes, STATE 627),
     (sym__raw_string_literal_single_quotes, STATE 627),
     (sym__raw_string_literal_double_quotes_multiple, STATE 627),
     (sym__raw_string_literal_single_quotes_multiple, STATE 627), (sym_list_literal, STATE 989),
     (sym_set_or_map_literal, STATE 989), (sym_pair, STATE 2660), (sym__element, STATE 2901),
     (sym_null_literal, STATE 989), (sym_record_literal, STATE 989),
     (sym__record_literal_no_const, STATE 924), (sym__expression, STATE 2562),
     (sym__real_expression, STATE 660), (sym_throw_expression, STATE 908),
     (sym_rethrow_expression, STATE 908), (sym_assignment_expression, STATE 908),
     (sym_assignable_expression, STATE 1940), (sym_function_expression, STATE 962),
     (sym_if_null_expression, STATE 1477), (sym_conditional_expression, STATE 1477),
     (sym_logical_or_expression, STATE 1477), (sym_logical_and_expression, STATE 1477),
     (sym_equality_expression, STATE 1477), (sym_type_cast_expression, STATE 1477),
     (sym_type_test_expression, STATE 1477), (sym_relational_expression, STATE 1477),
     (sym_bitwise_or_expression, STATE 1477), (sym_bitwise_xor_expression, STATE 1477),
     (sym_bitwise_and_expression, STATE 1477), (sym_shift_expression, STATE 1477),
     (sym_additive_expression, STATE 1477), (sym_multiplicative_expression, STATE 1477),
     (sym__unary_expression, STATE 1121), (sym_unary_expression, STATE 1303),
     (sym__postfix_expression, STATE 1303), (sym_postfix_expression, STATE 1301),
     (sym_spread_element, STATE 2660), (sym_prefix_operator, STATE 431),
     (sym_negation_operator, STATE 1450), (sym__exclamation_operator, STATE 1451),
     (sym_tilde_operator, STATE 1385), (sym_await_expression, STATE 1302),
     (sym_new_expression, STATE 962), (sym_const_object_expression, STATE 962),
     (sym__primary, STATE 668), (sym_parenthesized_expression, STATE 962),
     (sym_constructor_invocation, STATE 643), (sym_constructor_tearoff, STATE 962),
     (sym_type_arguments, STATE 3200), (sym_switch_expression, STATE 962),
     (sym__parenthesized_pattern, STATE 3182), (sym_list_pattern, STATE 3182),
     (sym_map_pattern, STATE 3182), (sym_record_pattern, STATE 3182),
     (sym_object_pattern, STATE 3182), (sym__outer_pattern, STATE 3410),
     (sym_pattern_assignment, STATE 908), (sym_if_element, STATE 2660),
     (sym_for_element, STATE 2660), (sym_type_parameters, STATE 2932),
     (sym__type_name, STATE 2661), (sym__formal_parameter_part, STATE 2339),
     (sym_formal_parameter_list, STATE 2020), (sym__strict_formal_parameter_list, STATE 2016),
     (sym__new_builtin, STATE 2079), (sym_this, STATE 962), (sym_super, STATE 1337),
     (sym_comment, STATE 148), (sym_documentation_comment, STATE 148),
     (aux_sym_string_literal_repeat1, STATE 474), (sym_identifier, ACTIONS 494),
     (anon_sym_POUND, ACTIONS 73), (sym_decimal_integer_literal, ACTIONS 75),
     (sym_hex_integer_literal, ACTIONS 77), (sym_decimal_floating_point_literal, ACTIONS 75),
     (anon_sym_true, ACTIONS 79), (anon_sym_false, ACTIONS 81), (anon_sym_DQUOTE, ACTIONS 83),
     (anon_sym_SQUOTE, ACTIONS 85), (anon_sym_DQUOTE_DQUOTE_DQUOTE, ACTIONS 87),
     (anon_sym_SQUOTE_SQUOTE_SQUOTE, ACTIONS 89), (anon_sym_r_DQUOTE, ACTIONS 91),
     (anon_sym_r_SQUOTE, ACTIONS 93), (anon_sym_r_DQUOTE_DQUOTE_DQUOTE, ACTIONS 95),
     (anon_sym_r_SQUOTE_SQUOTE_SQUOTE, ACTIONS 97), (anon_sym_LBRACE, ACTIONS 442),
     (anon_sym_RBRACE, ACTIONS 618), (anon_sym_LBRACK, ACTIONS 103),
     (anon_sym_null, ACTIONS 105), (anon_sym_LPAREN, ACTIONS 498), (anon_sym_throw, ACTIONS 109),
     (anon_sym_LT, ACTIONS 111), (sym_increment_operator, ACTIONS 113),
     (anon_sym_DOT_DOT_DOT, ACTIONS 167), (sym_minus_operator, ACTIONS 117),
     (anon_sym_BANG, ACTIONS 119), (anon_sym_TILDE, ACTIONS 121), (anon_sym_await, ACTIONS 410),
     (anon_sym_switch, ACTIONS 412), (anon_sym_if, ACTIONS 414), (anon_sym_for, ACTIONS 416),
     (sym_rethrow_builtin, ACTIONS 151), (anon_sym_new, ACTIONS 155),
     (sym_const_builtin, ACTIONS 478), (anon_sym_this, ACTIONS 159),
     (anon_sym_super, ACTIONS 161), (anon_sym_SLASH_SLASH, ACTIONS 3),
     (anon_sym_SLASH_STAR, ACTIONS 5), (anon_sym_SLASH_SLASH_SLASH, ACTIONS 7),
     (sym__block_comment, ACTIONS 9), (sym__documentation_block_comment, ACTIONS 11)]"

lemma row_ok_148: "table_row_ok 148 ts_parse_table_148"
  by (simp add: row_simps ts_parse_table_148_def)

definition ts_parse_table_149 :: table_row where
  "ts_parse_table_149 = [
     (sym__bool_literal, STATE 989), (sym__numeric_literal, STATE 989),
     (sym__literal, STATE 962), (sym_symbol_literal, STATE 989), (sym_true, STATE 900),
     (sym_false, STATE 900), (sym_string_literal, STATE 989),
     (sym__string_literal_double_quotes, STATE 627),
     (sym__string_literal_single_quotes, STATE 627),
     (sym__string_literal_double_quotes_multiple, STATE 627),
     (sym__string_literal_single_quotes_multiple, STATE 627),
     (sym__raw_string_literal_double_quotes, STATE 627),
     (sym__raw_string_literal_single_quotes, STATE 627),
     (sym__raw_string_literal_double_quotes_multiple, STATE 627),
     (sym__raw_string_literal_single_quotes_multiple, STATE 627), (sym_list_literal, STATE 989),
     (sym_set_or_map_literal, STATE 989), (sym_pair, STATE 2660), (sym__element, STATE 2953),
     (sym_null_literal, STATE 989), (sym_record_literal, STATE 989),
     (sym__record_literal_no_const, STATE 924), (sym__expression, STATE 2562),
     (sym__real_expression, STATE 660), (sym_throw_expression, STATE 908),
     (sym_rethrow_expression, STATE 908), (sym_assignment_expression, STATE 908),
     (sym_assignable_expression, STATE 1940), (sym_function_expression, STATE 962),
     (sym_if_null_expression, STATE 1477), (sym_conditional_expression, STATE 1477),
     (sym_logical_or_expression, STATE 1477), (sym_logical_and_expression, STATE 1477),
     (sym_equality_expression, STATE 1477), (sym_type_cast_expression, STATE 1477),
     (sym_type_test_expression, STATE 1477), (sym_relational_expression, STATE 1477),
     (sym_bitwise_or_expression, STATE 1477), (sym_bitwise_xor_expression, STATE 1477),
     (sym_bitwise_and_expression, STATE 1477), (sym_shift_expression, STATE 1477),
     (sym_additive_expression, STATE 1477), (sym_multiplicative_expression, STATE 1477),
     (sym__unary_expression, STATE 1121), (sym_unary_expression, STATE 1303),
     (sym__postfix_expression, STATE 1303), (sym_postfix_expression, STATE 1301),
     (sym_spread_element, STATE 2660), (sym_prefix_operator, STATE 431),
     (sym_negation_operator, STATE 1450), (sym__exclamation_operator, STATE 1451),
     (sym_tilde_operator, STATE 1385), (sym_await_expression, STATE 1302),
     (sym_new_expression, STATE 962), (sym_const_object_expression, STATE 962),
     (sym__primary, STATE 668), (sym_parenthesized_expression, STATE 962),
     (sym_constructor_invocation, STATE 643), (sym_constructor_tearoff, STATE 962),
     (sym_type_arguments, STATE 3200), (sym_switch_expression, STATE 962),
     (sym__parenthesized_pattern, STATE 3182), (sym_list_pattern, STATE 3182),
     (sym_map_pattern, STATE 3182), (sym_record_pattern, STATE 3182),
     (sym_object_pattern, STATE 3182), (sym__outer_pattern, STATE 3410),
     (sym_pattern_assignment, STATE 908), (sym_if_element, STATE 2660),
     (sym_for_element, STATE 2660), (sym_type_parameters, STATE 2932),
     (sym__type_name, STATE 2661), (sym__formal_parameter_part, STATE 2339),
     (sym_formal_parameter_list, STATE 2020), (sym__strict_formal_parameter_list, STATE 2016),
     (sym__new_builtin, STATE 2079), (sym_this, STATE 962), (sym_super, STATE 1337),
     (sym_comment, STATE 149), (sym_documentation_comment, STATE 149),
     (aux_sym_string_literal_repeat1, STATE 474), (sym_identifier, ACTIONS 494),
     (anon_sym_POUND, ACTIONS 73), (sym_decimal_integer_literal, ACTIONS 75),
     (sym_hex_integer_literal, ACTIONS 77), (sym_decimal_floating_point_literal, ACTIONS 75),
     (anon_sym_true, ACTIONS 79), (anon_sym_false, ACTIONS 81), (anon_sym_DQUOTE, ACTIONS 83),
     (anon_sym_SQUOTE, ACTIONS 85), (anon_sym_DQUOTE_DQUOTE_DQUOTE, ACTIONS 87),
     (anon_sym_SQUOTE_SQUOTE_SQUOTE, ACTIONS 89), (anon_sym_r_DQUOTE, ACTIONS 91),
     (anon_sym_r_SQUOTE, ACTIONS 93), (anon_sym_r_DQUOTE_DQUOTE_DQUOTE, ACTIONS 95),
     (anon_sym_r_SQUOTE_SQUOTE_SQUOTE, ACTIONS 97), (anon_sym_LBRACE, ACTIONS 442),
     (anon_sym_RBRACE, ACTIONS 528), (anon_sym_LBRACK, ACTIONS 103),
     (anon_sym_null, ACTIONS 105), (anon_sym_LPAREN, ACTIONS 498), (anon_sym_throw, ACTIONS 109),
     (anon_sym_LT, ACTIONS 111), (sym_increment_operator, ACTIONS 113),
     (anon_sym_DOT_DOT_DOT, ACTIONS 167), (sym_minus_operator, ACTIONS 117),
     (anon_sym_BANG, ACTIONS 119), (anon_sym_TILDE, ACTIONS 121), (anon_sym_await, ACTIONS 410),
     (anon_sym_switch, ACTIONS 412), (anon_sym_if, ACTIONS 414), (anon_sym_for, ACTIONS 416),
     (sym_rethrow_builtin, ACTIONS 151), (anon_sym_new, ACTIONS 155),
     (sym_const_builtin, ACTIONS 478), (anon_sym_this, ACTIONS 159),
     (anon_sym_super, ACTIONS 161), (anon_sym_SLASH_SLASH, ACTIONS 3),
     (anon_sym_SLASH_STAR, ACTIONS 5), (anon_sym_SLASH_SLASH_SLASH, ACTIONS 7),
     (sym__block_comment, ACTIONS 9), (sym__documentation_block_comment, ACTIONS 11)]"

lemma row_ok_149: "table_row_ok 149 ts_parse_table_149"
  by (simp add: row_simps ts_parse_table_149_def)

definition ts_parse_table_150 :: table_row where
  "ts_parse_table_150 = [
     (sym__bool_literal, STATE 989), (sym__numeric_literal, STATE 989),
     (sym__literal, STATE 962), (sym_symbol_literal, STATE 989), (sym_true, STATE 900),
     (sym_false, STATE 900), (sym_string_literal, STATE 989),
     (sym__string_literal_double_quotes, STATE 627),
     (sym__string_literal_single_quotes, STATE 627),
     (sym__string_literal_double_quotes_multiple, STATE 627),
     (sym__string_literal_single_quotes_multiple, STATE 627),
     (sym__raw_string_literal_double_quotes, STATE 627),
     (sym__raw_string_literal_single_quotes, STATE 627),
     (sym__raw_string_literal_double_quotes_multiple, STATE 627),
     (sym__raw_string_literal_single_quotes_multiple, STATE 627), (sym_list_literal, STATE 989),
     (sym_set_or_map_literal, STATE 989), (sym_pair, STATE 2660), (sym__element, STATE 2615),
     (sym_null_literal, STATE 989), (sym_record_literal, STATE 989),
     (sym__record_literal_no_const, STATE 924), (sym__expression, STATE 2562),
     (sym__real_expression, STATE 660), (sym_throw_expression, STATE 908),
     (sym_rethrow_expression, STATE 908), (sym_assignment_expression, STATE 908),
     (sym_assignable_expression, STATE 1940), (sym_function_expression, STATE 962),
     (sym_if_null_expression, STATE 1477), (sym_conditional_expression, STATE 1477),
     (sym_logical_or_expression, STATE 1477), (sym_logical_and_expression, STATE 1477),
     (sym_equality_expression, STATE 1477), (sym_type_cast_expression, STATE 1477),
     (sym_type_test_expression, STATE 1477), (sym_relational_expression, STATE 1477),
     (sym_bitwise_or_expression, STATE 1477), (sym_bitwise_xor_expression, STATE 1477),
     (sym_bitwise_and_expression, STATE 1477), (sym_shift_expression, STATE 1477),
     (sym_additive_expression, STATE 1477), (sym_multiplicative_expression, STATE 1477),
     (sym__unary_expression, STATE 1121), (sym_unary_expression, STATE 1303),
     (sym__postfix_expression, STATE 1303), (sym_postfix_expression, STATE 1301),
     (sym_spread_element, STATE 2660), (sym_prefix_operator, STATE 431),
     (sym_negation_operator, STATE 1450), (sym__exclamation_operator, STATE 1451),
     (sym_tilde_operator, STATE 1385), (sym_await_expression, STATE 1302),
     (sym_new_expression, STATE 962), (sym_const_object_expression, STATE 962),
     (sym__primary, STATE 668), (sym_parenthesized_expression, STATE 962),
     (sym_constructor_invocation, STATE 643), (sym_constructor_tearoff, STATE 962),
     (sym_type_arguments, STATE 3200), (sym_switch_expression, STATE 962),
     (sym__parenthesized_pattern, STATE 3182), (sym_list_pattern, STATE 3182),
     (sym_map_pattern, STATE 3182), (sym_record_pattern, STATE 3182),
     (sym_object_pattern, STATE 3182), (sym__outer_pattern, STATE 3410),
     (sym_pattern_assignment, STATE 908), (sym_if_element, STATE 2660),
     (sym_for_element, STATE 2660), (sym_type_parameters, STATE 2932),
     (sym__type_name, STATE 2661), (sym__formal_parameter_part, STATE 2339),
     (sym_formal_parameter_list, STATE 2020), (sym__strict_formal_parameter_list, STATE 2016),
     (sym__new_builtin, STATE 2079), (sym_this, STATE 962), (sym_super, STATE 1337),
     (sym_comment, STATE 150), (sym_documentation_comment, STATE 150),
     (aux_sym_string_literal_repeat1, STATE 474), (sym_identifier, ACTIONS 494),
     (anon_sym_POUND, ACTIONS 73), (sym_decimal_integer_literal, ACTIONS 75),
     (sym_hex_integer_literal, ACTIONS 77), (sym_decimal_floating_point_literal, ACTIONS 75),
     (anon_sym_true, ACTIONS 79), (anon_sym_false, ACTIONS 81), (anon_sym_DQUOTE, ACTIONS 83),
     (anon_sym_SQUOTE, ACTIONS 85), (anon_sym_DQUOTE_DQUOTE_DQUOTE, ACTIONS 87),
     (anon_sym_SQUOTE_SQUOTE_SQUOTE, ACTIONS 89), (anon_sym_r_DQUOTE, ACTIONS 91),
     (anon_sym_r_SQUOTE, ACTIONS 93), (anon_sym_r_DQUOTE_DQUOTE_DQUOTE, ACTIONS 95),
     (anon_sym_r_SQUOTE_SQUOTE_SQUOTE, ACTIONS 97), (anon_sym_LBRACE, ACTIONS 442),
     (anon_sym_LBRACK, ACTIONS 103), (anon_sym_null, ACTIONS 105),
     (anon_sym_LPAREN, ACTIONS 498), (anon_sym_throw, ACTIONS 109), (anon_sym_LT, ACTIONS 111),
     (sym_increment_operator, ACTIONS 113), (anon_sym_DOT_DOT_DOT, ACTIONS 167),
     (sym_minus_operator, ACTIONS 117), (anon_sym_BANG, ACTIONS 119),
     (anon_sym_TILDE, ACTIONS 121), (anon_sym_await, ACTIONS 410),
     (anon_sym_switch, ACTIONS 412), (anon_sym_if, ACTIONS 414), (anon_sym_for, ACTIONS 416),
     (sym_rethrow_builtin, ACTIONS 151), (anon_sym_new, ACTIONS 155),
     (sym_const_builtin, ACTIONS 478), (anon_sym_this, ACTIONS 159),
     (anon_sym_super, ACTIONS 161), (anon_sym_SLASH_SLASH, ACTIONS 3),
     (anon_sym_SLASH_STAR, ACTIONS 5), (anon_sym_SLASH_SLASH_SLASH, ACTIONS 7),
     (sym__block_comment, ACTIONS 9), (sym__documentation_block_comment, ACTIONS 11)]"

lemma row_ok_150: "table_row_ok 150 ts_parse_table_150"
  by (simp add: row_simps ts_parse_table_150_def)

definition ts_parse_table_151 :: table_row where
  "ts_parse_table_151 = [
     (sym__bool_literal, STATE 989), (sym__numeric_literal, STATE 989),
     (sym__literal, STATE 962), (sym_symbol_literal, STATE 989), (sym_true, STATE 900),
     (sym_false, STATE 900), (sym_string_literal, STATE 989),
     (sym__string_literal_double_quotes, STATE 627),
     (sym__string_literal_single_quotes, STATE 627),
     (sym__string_literal_double_quotes_multiple, STATE 627),
     (sym__string_literal_single_quotes_multiple, STATE 627),
     (sym__raw_string_literal_double_quotes, STATE 627),
     (sym__raw_string_literal_single_quotes, STATE 627),
     (sym__raw_string_literal_double_quotes_multiple, STATE 627),
     (sym__raw_string_literal_single_quotes_multiple, STATE 627), (sym_list_literal, STATE 989),
     (sym_set_or_map_literal, STATE 989), (sym_pair, STATE 2660), (sym__element, STATE 2588),
     (sym_null_literal, STATE 989), (sym_record_literal, STATE 989),
     (sym__record_literal_no_const, STATE 924), (sym__expression, STATE 2562),
     (sym__real_expression, STATE 660), (sym_throw_expression, STATE 908),
     (sym_rethrow_expression, STATE 908), (sym_assignment_expression, STATE 908),
     (sym_assignable_expression, STATE 1940), (sym_function_expression, STATE 962),
     (sym_if_null_expression, STATE 1477), (sym_conditional_expression, STATE 1477),
     (sym_logical_or_expression, STATE 1477), (sym_logical_and_expression, STATE 1477),
     (sym_equality_expression, STATE 1477), (sym_type_cast_expression, STATE 1477),
     (sym_type_test_expression, STATE 1477), (sym_relational_expression, STATE 1477),
     (sym_bitwise_or_expression, STATE 1477), (sym_bitwise_xor_expression, STATE 1477),
     (sym_bitwise_and_expression, STATE 1477), (sym_shift_expression, STATE 1477),
     (sym_additive_expression, STATE 1477), (sym_multiplicative_expression, STATE 1477),
     (sym__unary_expression, STATE 1121), (sym_unary_expression, STATE 1303),
     (sym__postfix_expression, STATE 1303), (sym_postfix_expression, STATE 1301),
     (sym_spread_element, STATE 2660), (sym_prefix_operator, STATE 431),
     (sym_negation_operator, STATE 1450), (sym__exclamation_operator, STATE 1451),
     (sym_tilde_operator, STATE 1385), (sym_await_expression, STATE 1302),
     (sym_new_expression, STATE 962), (sym_const_object_expression, STATE 962),
     (sym__primary, STATE 668), (sym_parenthesized_expression, STATE 962),
     (sym_constructor_invocation, STATE 643), (sym_constructor_tearoff, STATE 962),
     (sym_type_arguments, STATE 3200), (sym_switch_expression, STATE 962),
     (sym__parenthesized_pattern, STATE 3182), (sym_list_pattern, STATE 3182),
     (sym_map_pattern, STATE 3182), (sym_record_pattern, STATE 3182),
     (sym_object_pattern, STATE 3182), (sym__outer_pattern, STATE 3410),
     (sym_pattern_assignment, STATE 908), (sym_if_element, STATE 2660),
     (sym_for_element, STATE 2660), (sym_type_parameters, STATE 2932),
     (sym__type_name, STATE 2661), (sym__formal_parameter_part, STATE 2339),
     (sym_formal_parameter_list, STATE 2020), (sym__strict_formal_parameter_list, STATE 2016),
     (sym__new_builtin, STATE 2079), (sym_this, STATE 962), (sym_super, STATE 1337),
     (sym_comment, STATE 151), (sym_documentation_comment, STATE 151),
     (aux_sym_string_literal_repeat1, STATE 474), (sym_identifier, ACTIONS 494),
     (anon_sym_POUND, ACTIONS 73), (sym_decimal_integer_literal, ACTIONS 75),
     (sym_hex_integer_literal, ACTIONS 77), (sym_decimal_floating_point_literal, ACTIONS 75),
     (anon_sym_true, ACTIONS 79), (anon_sym_false, ACTIONS 81), (anon_sym_DQUOTE, ACTIONS 83),
     (anon_sym_SQUOTE, ACTIONS 85), (anon_sym_DQUOTE_DQUOTE_DQUOTE, ACTIONS 87),
     (anon_sym_SQUOTE_SQUOTE_SQUOTE, ACTIONS 89), (anon_sym_r_DQUOTE, ACTIONS 91),
     (anon_sym_r_SQUOTE, ACTIONS 93), (anon_sym_r_DQUOTE_DQUOTE_DQUOTE, ACTIONS 95),
     (anon_sym_r_SQUOTE_SQUOTE_SQUOTE, ACTIONS 97), (anon_sym_LBRACE, ACTIONS 442),
     (anon_sym_LBRACK, ACTIONS 103), (anon_sym_null, ACTIONS 105),
     (anon_sym_LPAREN, ACTIONS 498), (anon_sym_throw, ACTIONS 109), (anon_sym_LT, ACTIONS 111),
     (sym_increment_operator, ACTIONS 113), (anon_sym_DOT_DOT_DOT, ACTIONS 167),
     (sym_minus_operator, ACTIONS 117), (anon_sym_BANG, ACTIONS 119),
     (anon_sym_TILDE, ACTIONS 121), (anon_sym_await, ACTIONS 410),
     (anon_sym_switch, ACTIONS 412), (anon_sym_if, ACTIONS 414), (anon_sym_for, ACTIONS 416),
     (sym_rethrow_builtin, ACTIONS 151), (anon_sym_new, ACTIONS 155),
     (sym_const_builtin, ACTIONS 478), (anon_sym_this, ACTIONS 159),
     (anon_sym_super, ACTIONS 161), (anon_sym_SLASH_SLASH, ACTIONS 3),
     (anon_sym_SLASH_STAR, ACTIONS 5), (anon_sym_SLASH_SLASH_SLASH, ACTIONS 7),
     (sym__block_comment, ACTIONS 9), (sym__documentation_block_comment, ACTIONS 11)]"

lemma row_ok_151: "table_row_ok 151 ts_parse_table_151"
  by (simp add: row_simps ts_parse_table_151_def)

definition ts_parse_table_152 :: table_row where
  "ts_parse_table_152 = [
     (sym__bool_literal, STATE 989), (sym__numeric_literal, STATE 989),
     (sym__literal, STATE 962), (sym_symbol_literal, STATE 989), (sym_true, STATE 900),
     (sym_false, STATE 900), (sym_string_literal, STATE 989),
     (sym__string_literal_double_quotes, STATE 627),
     (sym__string_literal_single_quotes, STATE 627),
     (sym__string_literal_double_quotes_multiple, STATE 627),
     (sym__string_literal_single_quotes_multiple, STATE 627),
     (sym__raw_string_literal_double_quotes, STATE 627),
     (sym__raw_string_literal_single_quotes, STATE 627),
     (sym__raw_string_literal_double_quotes_multiple, STATE 627),
     (sym__raw_string_literal_single_quotes_multiple, STATE 627), (sym_list_literal, STATE 989),
     (sym_set_or_map_literal, STATE 989), (sym_pair, STATE 2660), (sym__element, STATE 2589),
     (sym_null_literal, STATE 989), (sym_record_literal, STATE 989),
     (sym__record_literal_no_const, STATE 924), (sym__expression, STATE 2562),
     (sym__real_expression, STATE 660), (sym_throw_expression, STATE 908),
     (sym_rethrow_expression, STATE 908), (sym_assignment_expression, STATE 908),
     (sym_assignable_expression, STATE 1940), (sym_function_expression, STATE 962),
     (sym_if_null_expression, STATE 1477), (sym_conditional_expression, STATE 1477),
     (sym_logical_or_expression, STATE 1477), (sym_logical_and_expression, STATE 1477),
     (sym_equality_expression, STATE 1477), (sym_type_cast_expression, STATE 1477),
     (sym_type_test_expression, STATE 1477), (sym_relational_expression, STATE 1477),
     (sym_bitwise_or_expression, STATE 1477), (sym_bitwise_xor_expression, STATE 1477),
     (sym_bitwise_and_expression, STATE 1477), (sym_shift_expression, STATE 1477),
     (sym_additive_expression, STATE 1477), (sym_multiplicative_expression, STATE 1477),
     (sym__unary_expression, STATE 1121), (sym_unary_expression, STATE 1303),
     (sym__postfix_expression, STATE 1303), (sym_postfix_expression, STATE 1301),
     (sym_spread_element, STATE 2660), (sym_prefix_operator, STATE 431),
     (sym_negation_operator, STATE 1450), (sym__exclamation_operator, STATE 1451),
     (sym_tilde_operator, STATE 1385), (sym_await_expression, STATE 1302),
     (sym_new_expression, STATE 962), (sym_const_object_expression, STATE 962),
     (sym__primary, STATE 668), (sym_parenthesized_expression, STATE 962),
     (sym_constructor_invocation, STATE 643), (sym_constructor_tearoff, STATE 962),
     (sym_type_arguments, STATE 3200), (sym_switch_expression, STATE 962),
     (sym__parenthesized_pattern, STATE 3182), (sym_list_pattern, STATE 3182),
     (sym_map_pattern, STATE 3182), (sym_record_pattern, STATE 3182),
     (sym_object_pattern, STATE 3182), (sym__outer_pattern, STATE 3410),
     (sym_pattern_assignment, STATE 908), (sym_if_element, STATE 2660),
     (sym_for_element, STATE 2660), (sym_type_parameters, STATE 2932),
     (sym__type_name, STATE 2661), (sym__formal_parameter_part, STATE 2339),
     (sym_formal_parameter_list, STATE 2020), (sym__strict_formal_parameter_list, STATE 2016),
     (sym__new_builtin, STATE 2079), (sym_this, STATE 962), (sym_super, STATE 1337),
     (sym_comment, STATE 152), (sym_documentation_comment, STATE 152),
     (aux_sym_string_literal_repeat1, STATE 474), (sym_identifier, ACTIONS 494),
     (anon_sym_POUND, ACTIONS 73), (sym_decimal_integer_literal, ACTIONS 75),
     (sym_hex_integer_literal, ACTIONS 77), (sym_decimal_floating_point_literal, ACTIONS 75),
     (anon_sym_true, ACTIONS 79), (anon_sym_false, ACTIONS 81), (anon_sym_DQUOTE, ACTIONS 83),
     (anon_sym_SQUOTE, ACTIONS 85), (anon_sym_DQUOTE_DQUOTE_DQUOTE, ACTIONS 87),
     (anon_sym_SQUOTE_SQUOTE_SQUOTE, ACTIONS 89), (anon_sym_r_DQUOTE, ACTIONS 91),
     (anon_sym_r_SQUOTE, ACTIONS 93), (anon_sym_r_DQUOTE_DQUOTE_DQUOTE, ACTIONS 95),
     (anon_sym_r_SQUOTE_SQUOTE_SQUOTE, ACTIONS 97), (anon_sym_LBRACE, ACTIONS 442),
     (anon_sym_LBRACK, ACTIONS 103), (anon_sym_null, ACTIONS 105),
     (anon_sym_LPAREN, ACTIONS 498), (anon_sym_throw, ACTIONS 109), (anon_sym_LT, ACTIONS 111),
     (sym_increment_operator, ACTIONS 113), (anon_sym_DOT_DOT_DOT, ACTIONS 167),
     (sym_minus_operator, ACTIONS 117), (anon_sym_BANG, ACTIONS 119),
     (anon_sym_TILDE, ACTIONS 121), (anon_sym_await, ACTIONS 410),
     (anon_sym_switch, ACTIONS 412), (anon_sym_if, ACTIONS 414), (anon_sym_for, ACTIONS 416),
     (sym_rethrow_builtin, ACTIONS 151), (anon_sym_new, ACTIONS 155),
     (sym_const_builtin, ACTIONS 478), (anon_sym_this, ACTIONS 159),
     (anon_sym_super, ACTIONS 161), (anon_sym_SLASH_SLASH, ACTIONS 3),
     (anon_sym_SLASH_STAR, ACTIONS 5), (anon_sym_SLASH_SLASH_SLASH, ACTIONS 7),
     (sym__block_comment, ACTIONS 9), (sym__documentation_block_comment, ACTIONS 11)]"

lemma row_ok_152: "table_row_ok 152 ts_parse_table_152"
  by (simp add: row_simps ts_parse_table_152_def)

definition ts_parse_table_153 :: table_row where
  "ts_parse_table_153 = [
     (sym__bool_literal, STATE 989), (sym__numeric_literal, STATE 989),
     (sym__literal, STATE 962), (sym_symbol_literal, STATE 989), (sym_true, STATE 900),
     (sym_false, STATE 900), (sym_string_literal, STATE 989),
     (sym__string_literal_double_quotes, STATE 627),
     (sym__string_literal_single_quotes, STATE 627),
     (sym__string_literal_double_quotes_multiple, STATE 627),
     (sym__string_literal_single_quotes_multiple, STATE 627),
     (sym__raw_string_literal_double_quotes, STATE 627),
     (sym__raw_string_literal_single_quotes, STATE 627),
     (sym__raw_string_literal_double_quotes_multiple, STATE 627),
     (sym__raw_string_literal_single_quotes_multiple, STATE 627), (sym_list_literal, STATE 989),
     (sym_set_or_map_literal, STATE 989), (sym_pair, STATE 2660), (sym__element, STATE 2835),
     (sym_null_literal, STATE 989), (sym_record_literal, STATE 989),
     (sym__record_literal_no_const, STATE 924), (sym__expression, STATE 2562),
     (sym__real_expression, STATE 660), (sym_throw_expression, STATE 908),
     (sym_rethrow_expression, STATE 908), (sym_assignment_expression, STATE 908),
     (sym_assignable_expression, STATE 1940), (sym_function_expression, STATE 962),
     (sym_if_null_expression, STATE 1477), (sym_conditional_expression, STATE 1477),
     (sym_logical_or_expression, STATE 1477), (sym_logical_and_expression, STATE 1477),
     (sym_equality_expression, STATE 1477), (sym_type_cast_expression, STATE 1477),
     (sym_type_test_expression, STATE 1477), (sym_relational_expression, STATE 1477),
     (sym_bitwise_or_expression, STATE 1477), (sym_bitwise_xor_expression, STATE 1477),
     (sym_bitwise_and_expression, STATE 1477), (sym_shift_expression, STATE 1477),
     (sym_additive_expression, STATE 1477), (sym_multiplicative_expression, STATE 1477),
     (sym__unary_expression, STATE 1121), (sym_unary_expression, STATE 1303),
     (sym__postfix_expression, STATE 1303), (sym_postfix_expression, STATE 1301),
     (sym_spread_element, STATE 2660), (sym_prefix_operator, STATE 431),
     (sym_negation_operator, STATE 1450), (sym__exclamation_operator, STATE 1451),
     (sym_tilde_operator, STATE 1385), (sym_await_expression, STATE 1302),
     (sym_new_expression, STATE 962), (sym_const_object_expression, STATE 962),
     (sym__primary, STATE 668), (sym_parenthesized_expression, STATE 962),
     (sym_constructor_invocation, STATE 643), (sym_constructor_tearoff, STATE 962),
     (sym_type_arguments, STATE 3200), (sym_switch_expression, STATE 962),
     (sym__parenthesized_pattern, STATE 3182), (sym_list_pattern, STATE 3182),
     (sym_map_pattern, STATE 3182), (sym_record_pattern, STATE 3182),
     (sym_object_pattern, STATE 3182), (sym__outer_pattern, STATE 3410),
     (sym_pattern_assignment, STATE 908), (sym_if_element, STATE 2660),
     (sym_for_element, STATE 2660), (sym_type_parameters, STATE 2932),
     (sym__type_name, STATE 2661), (sym__formal_parameter_part, STATE 2339),
     (sym_formal_parameter_list, STATE 2020), (sym__strict_formal_parameter_list, STATE 2016),
     (sym__new_builtin, STATE 2079), (sym_this, STATE 962), (sym_super, STATE 1337),
     (sym_comment, STATE 153), (sym_documentation_comment, STATE 153),
     (aux_sym_string_literal_repeat1, STATE 474), (sym_identifier, ACTIONS 494),
     (anon_sym_POUND, ACTIONS 73), (sym_decimal_integer_literal, ACTIONS 75),
     (sym_hex_integer_literal, ACTIONS 77), (sym_decimal_floating_point_literal, ACTIONS 75),
     (anon_sym_true, ACTIONS 79), (anon_sym_false, ACTIONS 81), (anon_sym_DQUOTE, ACTIONS 83),
     (anon_sym_SQUOTE, ACTIONS 85), (anon_sym_DQUOTE_DQUOTE_DQUOTE, ACTIONS 87),
     (anon_sym_SQUOTE_SQUOTE_SQUOTE, ACTIONS 89), (anon_sym_r_DQUOTE, ACTIONS 91),
     (anon_sym_r_SQUOTE, ACTIONS 93), (anon_sym_r_DQUOTE_DQUOTE_DQUOTE, ACTIONS 95),
     (anon_sym_r_SQUOTE_SQUOTE_SQUOTE, ACTIONS 97), (anon_sym_LBRACE, ACTIONS 442),
     (anon_sym_LBRACK, ACTIONS 103), (anon_sym_null, ACTIONS 105),
     (anon_sym_LPAREN, ACTIONS 498), (anon_sym_throw, ACTIONS 109), (anon_sym_LT, ACTIONS 111),
     (sym_increment_operator, ACTIONS 113), (anon_sym_DOT_DOT_DOT, ACTIONS 167),
     (sym_minus_operator, ACTIONS 117), (anon_sym_BANG, ACTIONS 119),
     (anon_sym_TILDE, ACTIONS 121), (anon_sym_await, ACTIONS 410),
     (anon_sym_switch, ACTIONS 412), (anon_sym_if, ACTIONS 414), (anon_sym_for, ACTIONS 416),
     (sym_rethrow_builtin, ACTIONS 151), (anon_sym_new, ACTIONS 155),
     (sym_const_builtin, ACTIONS 478), (anon_sym_this, ACTIONS 159),
     (anon_sym_super, ACTIONS 161), (anon_sym_SLASH_SLASH, ACTIONS 3),
     (anon_sym_SLASH_STAR, ACTIONS 5), (anon_sym_SLASH_SLASH_SLASH, ACTIONS 7),
     (sym__block_comment, ACTIONS 9), (sym__documentation_block_comment, ACTIONS 11)]"

lemma row_ok_153: "table_row_ok 153 ts_parse_table_153"
  by (simp add: row_simps ts_parse_table_153_def)

definition ts_parse_table_154 :: table_row where
  "ts_parse_table_154 = [
     (sym__bool_literal, STATE 989), (sym__numeric_literal, STATE 989),
     (sym__literal, STATE 962), (sym_symbol_literal, STATE 989), (sym_true, STATE 900),
     (sym_false, STATE 900), (sym_string_literal, STATE 989),
     (sym__string_literal_double_quotes, STATE 627),
     (sym__string_literal_single_quotes, STATE 627),
     (sym__string_literal_double_quotes_multiple, STATE 627),
     (sym__string_literal_single_quotes_multiple, STATE 627),
     (sym__raw_string_literal_double_quotes, STATE 627),
     (sym__raw_string_literal_single_quotes, STATE 627),
     (sym__raw_string_literal_double_quotes_multiple, STATE 627),
     (sym__raw_string_literal_single_quotes_multiple, STATE 627), (sym_list_literal, STATE 989),
     (sym_set_or_map_literal, STATE 989), (sym_pair, STATE 2660), (sym__element, STATE 2645),
     (sym_null_literal, STATE 989), (sym_record_literal, STATE 989),
     (sym__record_literal_no_const, STATE 924), (sym__expression, STATE 2562),
     (sym__real_expression, STATE 660), (sym_throw_expression, STATE 908),
     (sym_rethrow_expression, STATE 908), (sym_assignment_expression, STATE 908),
     (sym_assignable_expression, STATE 1940), (sym_function_expression, STATE 962),
     (sym_if_null_expression, STATE 1477), (sym_conditional_expression, STATE 1477),
     (sym_logical_or_expression, STATE 1477), (sym_logical_and_expression, STATE 1477),
     (sym_equality_expression, STATE 1477), (sym_type_cast_expression, STATE 1477),
     (sym_type_test_expression, STATE 1477), (sym_relational_expression, STATE 1477),
     (sym_bitwise_or_expression, STATE 1477), (sym_bitwise_xor_expression, STATE 1477),
     (sym_bitwise_and_expression, STATE 1477), (sym_shift_expression, STATE 1477),
     (sym_additive_expression, STATE 1477), (sym_multiplicative_expression, STATE 1477),
     (sym__unary_expression, STATE 1121), (sym_unary_expression, STATE 1303),
     (sym__postfix_expression, STATE 1303), (sym_postfix_expression, STATE 1301),
     (sym_spread_element, STATE 2660), (sym_prefix_operator, STATE 431),
     (sym_negation_operator, STATE 1450), (sym__exclamation_operator, STATE 1451),
     (sym_tilde_operator, STATE 1385), (sym_await_expression, STATE 1302),
     (sym_new_expression, STATE 962), (sym_const_object_expression, STATE 962),
     (sym__primary, STATE 668), (sym_parenthesized_expression, STATE 962),
     (sym_constructor_invocation, STATE 643), (sym_constructor_tearoff, STATE 962),
     (sym_type_arguments, STATE 3200), (sym_switch_expression, STATE 962),
     (sym__parenthesized_pattern, STATE 3182), (sym_list_pattern, STATE 3182),
     (sym_map_pattern, STATE 3182), (sym_record_pattern, STATE 3182),
     (sym_object_pattern, STATE 3182), (sym__outer_pattern, STATE 3410),
     (sym_pattern_assignment, STATE 908), (sym_if_element, STATE 2660),
     (sym_for_element, STATE 2660), (sym_type_parameters, STATE 2932),
     (sym__type_name, STATE 2661), (sym__formal_parameter_part, STATE 2339),
     (sym_formal_parameter_list, STATE 2020), (sym__strict_formal_parameter_list, STATE 2016),
     (sym__new_builtin, STATE 2079), (sym_this, STATE 962), (sym_super, STATE 1337),
     (sym_comment, STATE 154), (sym_documentation_comment, STATE 154),
     (aux_sym_string_literal_repeat1, STATE 474), (sym_identifier, ACTIONS 494),
     (anon_sym_POUND, ACTIONS 73), (sym_decimal_integer_literal, ACTIONS 75),
     (sym_hex_integer_literal, ACTIONS 77), (sym_decimal_floating_point_literal, ACTIONS 75),
     (anon_sym_true, ACTIONS 79), (anon_sym_false, ACTIONS 81), (anon_sym_DQUOTE, ACTIONS 83),
     (anon_sym_SQUOTE, ACTIONS 85), (anon_sym_DQUOTE_DQUOTE_DQUOTE, ACTIONS 87),
     (anon_sym_SQUOTE_SQUOTE_SQUOTE, ACTIONS 89), (anon_sym_r_DQUOTE, ACTIONS 91),
     (anon_sym_r_SQUOTE, ACTIONS 93), (anon_sym_r_DQUOTE_DQUOTE_DQUOTE, ACTIONS 95),
     (anon_sym_r_SQUOTE_SQUOTE_SQUOTE, ACTIONS 97), (anon_sym_LBRACE, ACTIONS 442),
     (anon_sym_LBRACK, ACTIONS 103), (anon_sym_null, ACTIONS 105),
     (anon_sym_LPAREN, ACTIONS 498), (anon_sym_throw, ACTIONS 109), (anon_sym_LT, ACTIONS 111),
     (sym_increment_operator, ACTIONS 113), (anon_sym_DOT_DOT_DOT, ACTIONS 167),
     (sym_minus_operator, ACTIONS 117), (anon_sym_BANG, ACTIONS 119),
     (anon_sym_TILDE, ACTIONS 121), (anon_sym_await, ACTIONS 410),
     (anon_sym_switch, ACTIONS 412), (anon_sym_if, ACTIONS 414), (anon_sym_for, ACTIONS 416),
     (sym_rethrow_builtin, ACTIONS 151), (anon_sym_new, ACTIONS 155),
     (sym_const_builtin, ACTIONS 478), (anon_sym_this, ACTIONS 159),
     (anon_sym_super, ACTIONS 161), (anon_sym_SLASH_SLASH, ACTIONS 3),
     (anon_sym_SLASH_STAR, ACTIONS 5), (anon_sym_SLASH_SLASH_SLASH, ACTIONS 7),
     (sym__block_comment, ACTIONS 9), (sym__documentation_block_comment, ACTIONS 11)]"

lemma row_ok_154: "table_row_ok 154 ts_parse_table_154"
  by (simp add: row_simps ts_parse_table_154_def)

definition ts_parse_table_155 :: table_row where
  "ts_parse_table_155 = [
     (sym__bool_literal, STATE 989), (sym__numeric_literal, STATE 989),
     (sym__literal, STATE 962), (sym_symbol_literal, STATE 989), (sym_true, STATE 900),
     (sym_false, STATE 900), (sym_string_literal, STATE 989),
     (sym__string_literal_double_quotes, STATE 627),
     (sym__string_literal_single_quotes, STATE 627),
     (sym__string_literal_double_quotes_multiple, STATE 627),
     (sym__string_literal_single_quotes_multiple, STATE 627),
     (sym__raw_string_literal_double_quotes, STATE 627),
     (sym__raw_string_literal_single_quotes, STATE 627),
     (sym__raw_string_literal_double_quotes_multiple, STATE 627),
     (sym__raw_string_literal_single_quotes_multiple, STATE 627), (sym_list_literal, STATE 989),
     (sym_set_or_map_literal, STATE 989), (sym_pair, STATE 2660), (sym__element, STATE 2752),
     (sym_null_literal, STATE 989), (sym_record_literal, STATE 989),
     (sym__record_literal_no_const, STATE 924), (sym__expression, STATE 2562),
     (sym__real_expression, STATE 660), (sym_throw_expression, STATE 908),
     (sym_rethrow_expression, STATE 908), (sym_assignment_expression, STATE 908),
     (sym_assignable_expression, STATE 1940), (sym_function_expression, STATE 962),
     (sym_if_null_expression, STATE 1477), (sym_conditional_expression, STATE 1477),
     (sym_logical_or_expression, STATE 1477), (sym_logical_and_expression, STATE 1477),
     (sym_equality_expression, STATE 1477), (sym_type_cast_expression, STATE 1477),
     (sym_type_test_expression, STATE 1477), (sym_relational_expression, STATE 1477),
     (sym_bitwise_or_expression, STATE 1477), (sym_bitwise_xor_expression, STATE 1477),
     (sym_bitwise_and_expression, STATE 1477), (sym_shift_expression, STATE 1477),
     (sym_additive_expression, STATE 1477), (sym_multiplicative_expression, STATE 1477),
     (sym__unary_expression, STATE 1121), (sym_unary_expression, STATE 1303),
     (sym__postfix_expression, STATE 1303), (sym_postfix_expression, STATE 1301),
     (sym_spread_element, STATE 2660), (sym_prefix_operator, STATE 431),
     (sym_negation_operator, STATE 1450), (sym__exclamation_operator, STATE 1451),
     (sym_tilde_operator, STATE 1385), (sym_await_expression, STATE 1302),
     (sym_new_expression, STATE 962), (sym_const_object_expression, STATE 962),
     (sym__primary, STATE 668), (sym_parenthesized_expression, STATE 962),
     (sym_constructor_invocation, STATE 643), (sym_constructor_tearoff, STATE 962),
     (sym_type_arguments, STATE 3200), (sym_switch_expression, STATE 962),
     (sym__parenthesized_pattern, STATE 3182), (sym_list_pattern, STATE 3182),
     (sym_map_pattern, STATE 3182), (sym_record_pattern, STATE 3182),
     (sym_object_pattern, STATE 3182), (sym__outer_pattern, STATE 3410),
     (sym_pattern_assignment, STATE 908), (sym_if_element, STATE 2660),
     (sym_for_element, STATE 2660), (sym_type_parameters, STATE 2932),
     (sym__type_name, STATE 2661), (sym__formal_parameter_part, STATE 2339),
     (sym_formal_parameter_list, STATE 2020), (sym__strict_formal_parameter_list, STATE 2016),
     (sym__new_builtin, STATE 2079), (sym_this, STATE 962), (sym_super, STATE 1337),
     (sym_comment, STATE 155), (sym_documentation_comment, STATE 155),
     (aux_sym_string_literal_repeat1, STATE 474), (sym_identifier, ACTIONS 494),
     (anon_sym_POUND, ACTIONS 73), (sym_decimal_integer_literal, ACTIONS 75),
     (sym_hex_integer_literal, ACTIONS 77), (sym_decimal_floating_point_literal, ACTIONS 75),
     (anon_sym_true, ACTIONS 79), (anon_sym_false, ACTIONS 81), (anon_sym_DQUOTE, ACTIONS 83),
     (anon_sym_SQUOTE, ACTIONS 85), (anon_sym_DQUOTE_DQUOTE_DQUOTE, ACTIONS 87),
     (anon_sym_SQUOTE_SQUOTE_SQUOTE, ACTIONS 89), (anon_sym_r_DQUOTE, ACTIONS 91),
     (anon_sym_r_SQUOTE, ACTIONS 93), (anon_sym_r_DQUOTE_DQUOTE_DQUOTE, ACTIONS 95),
     (anon_sym_r_SQUOTE_SQUOTE_SQUOTE, ACTIONS 97), (anon_sym_LBRACE, ACTIONS 442),
     (anon_sym_LBRACK, ACTIONS 103), (anon_sym_null, ACTIONS 105),
     (anon_sym_LPAREN, ACTIONS 498), (anon_sym_throw, ACTIONS 109), (anon_sym_LT, ACTIONS 111),
     (sym_increment_operator, ACTIONS 113), (anon_sym_DOT_DOT_DOT, ACTIONS 167),
     (sym_minus_operator, ACTIONS 117), (anon_sym_BANG, ACTIONS 119),
     (anon_sym_TILDE, ACTIONS 121), (anon_sym_await, ACTIONS 410),
     (anon_sym_switch, ACTIONS 412), (anon_sym_if, ACTIONS 414), (anon_sym_for, ACTIONS 416),
     (sym_rethrow_builtin, ACTIONS 151), (anon_sym_new, ACTIONS 155),
     (sym_const_builtin, ACTIONS 478), (anon_sym_this, ACTIONS 159),
     (anon_sym_super, ACTIONS 161), (anon_sym_SLASH_SLASH, ACTIONS 3),
     (anon_sym_SLASH_STAR, ACTIONS 5), (anon_sym_SLASH_SLASH_SLASH, ACTIONS 7),
     (sym__block_comment, ACTIONS 9), (sym__documentation_block_comment, ACTIONS 11)]"

lemma row_ok_155: "table_row_ok 155 ts_parse_table_155"
  by (simp add: row_simps ts_parse_table_155_def)

definition ts_parse_table_156 :: table_row where
  "ts_parse_table_156 = [
     (sym__bool_literal, STATE 989), (sym__numeric_literal, STATE 989),
     (sym__literal, STATE 962), (sym_symbol_literal, STATE 989), (sym_true, STATE 900),
     (sym_false, STATE 900), (sym_string_literal, STATE 989),
     (sym__string_literal_double_quotes, STATE 627),
     (sym__string_literal_single_quotes, STATE 627),
     (sym__string_literal_double_quotes_multiple, STATE 627),
     (sym__string_literal_single_quotes_multiple, STATE 627),
     (sym__raw_string_literal_double_quotes, STATE 627),
     (sym__raw_string_literal_single_quotes, STATE 627),
     (sym__raw_string_literal_double_quotes_multiple, STATE 627),
     (sym__raw_string_literal_single_quotes_multiple, STATE 627), (sym_list_literal, STATE 989),
     (sym_set_or_map_literal, STATE 989), (sym_pair, STATE 2660), (sym__element, STATE 2837),
     (sym_null_literal, STATE 989), (sym_record_literal, STATE 989),
     (sym__record_literal_no_const, STATE 924), (sym__expression, STATE 2562),
     (sym__real_expression, STATE 660), (sym_throw_expression, STATE 908),
     (sym_rethrow_expression, STATE 908), (sym_assignment_expression, STATE 908),
     (sym_assignable_expression, STATE 1940), (sym_function_expression, STATE 962),
     (sym_if_null_expression, STATE 1477), (sym_conditional_expression, STATE 1477),
     (sym_logical_or_expression, STATE 1477), (sym_logical_and_expression, STATE 1477),
     (sym_equality_expression, STATE 1477), (sym_type_cast_expression, STATE 1477),
     (sym_type_test_expression, STATE 1477), (sym_relational_expression, STATE 1477),
     (sym_bitwise_or_expression, STATE 1477), (sym_bitwise_xor_expression, STATE 1477),
     (sym_bitwise_and_expression, STATE 1477), (sym_shift_expression, STATE 1477),
     (sym_additive_expression, STATE 1477), (sym_multiplicative_expression, STATE 1477),
     (sym__unary_expression, STATE 1121), (sym_unary_expression, STATE 1303),
     (sym__postfix_expression, STATE 1303), (sym_postfix_expression, STATE 1301),
     (sym_spread_element, STATE 2660), (sym_prefix_operator, STATE 431),
     (sym_negation_operator, STATE 1450), (sym__exclamation_operator, STATE 1451),
     (sym_tilde_operator, STATE 1385), (sym_await_expression, STATE 1302),
     (sym_new_expression, STATE 962), (sym_const_object_expression, STATE 962),
     (sym__primary, STATE 668), (sym_parenthesized_expression, STATE 962),
     (sym_constructor_invocation, STATE 643), (sym_constructor_tearoff, STATE 962),
     (sym_type_arguments, STATE 3200), (sym_switch_expression, STATE 962),
     (sym__parenthesized_pattern, STATE 3182), (sym_list_pattern, STATE 3182),
     (sym_map_pattern, STATE 3182), (sym_record_pattern, STATE 3182),
     (sym_object_pattern, STATE 3182), (sym__outer_pattern, STATE 3410),
     (sym_pattern_assignment, STATE 908), (sym_if_element, STATE 2660),
     (sym_for_element, STATE 2660), (sym_type_parameters, STATE 2932),
     (sym__type_name, STATE 2661), (sym__formal_parameter_part, STATE 2339),
     (sym_formal_parameter_list, STATE 2020), (sym__strict_formal_parameter_list, STATE 2016),
     (sym__new_builtin, STATE 2079), (sym_this, STATE 962), (sym_super, STATE 1337),
     (sym_comment, STATE 156), (sym_documentation_comment, STATE 156),
     (aux_sym_string_literal_repeat1, STATE 474), (sym_identifier, ACTIONS 494),
     (anon_sym_POUND, ACTIONS 73), (sym_decimal_integer_literal, ACTIONS 75),
     (sym_hex_integer_literal, ACTIONS 77), (sym_decimal_floating_point_literal, ACTIONS 75),
     (anon_sym_true, ACTIONS 79), (anon_sym_false, ACTIONS 81), (anon_sym_DQUOTE, ACTIONS 83),
     (anon_sym_SQUOTE, ACTIONS 85), (anon_sym_DQUOTE_DQUOTE_DQUOTE, ACTIONS 87),
     (anon_sym_SQUOTE_SQUOTE_SQUOTE, ACTIONS 89), (anon_sym_r_DQUOTE, ACTIONS 91),
     (anon_sym_r_SQUOTE, ACTIONS 93), (anon_sym_r_DQUOTE_DQUOTE_DQUOTE, ACTIONS 95),
     (anon_sym_r_SQUOTE_SQUOTE_SQUOTE, ACTIONS 97), (anon_sym_LBRACE, ACTIONS 442),
     (anon_sym_LBRACK, ACTIONS 103), (anon_sym_null, ACTIONS 105),
     (anon_sym_LPAREN, ACTIONS 498), (anon_sym_throw, ACTIONS 109), (anon_sym_LT, ACTIONS 111),
     (sym_increment_operator, ACTIONS 113), (anon_sym_DOT_DOT_DOT, ACTIONS 167),
     (sym_minus_operator, ACTIONS 117), (anon_sym_BANG, ACTIONS 119),
     (anon_sym_TILDE, ACTIONS 121), (anon_sym_await, ACTIONS 410),
     (anon_sym_switch, ACTIONS 412), (anon_sym_if, ACTIONS 414), (anon_sym_for, ACTIONS 416),
     (sym_rethrow_builtin, ACTIONS 151), (anon_sym_new, ACTIONS 155),
     (sym_const_builtin, ACTIONS 478), (anon_sym_this, ACTIONS 159),
     (anon_sym_super, ACTIONS 161), (anon_sym_SLASH_SLASH, ACTIONS 3),
     (anon_sym_SLASH_STAR, ACTIONS 5), (anon_sym_SLASH_SLASH_SLASH, ACTIONS 7),
     (sym__block_comment, ACTIONS 9), (sym__documentation_block_comment, ACTIONS 11)]"

lemma row_ok_156: "table_row_ok 156 ts_parse_table_156"
  by (simp add: row_simps ts_parse_table_156_def)

definition ts_parse_table_157 :: table_row where
  "ts_parse_table_157 = [
     (sym__bool_literal, STATE 989), (sym__numeric_literal, STATE 989),
     (sym__literal, STATE 962), (sym_symbol_literal, STATE 989), (sym_true, STATE 900),
     (sym_false, STATE 900), (sym_string_literal, STATE 989),
     (sym__string_literal_double_quotes, STATE 627),
     (sym__string_literal_single_quotes, STATE 627),
     (sym__string_literal_double_quotes_multiple, STATE 627),
     (sym__string_literal_single_quotes_multiple, STATE 627),
     (sym__raw_string_literal_double_quotes, STATE 627),
     (sym__raw_string_literal_single_quotes, STATE 627),
     (sym__raw_string_literal_double_quotes_multiple, STATE 627),
     (sym__raw_string_literal_single_quotes_multiple, STATE 627), (sym_list_literal, STATE 989),
     (sym_set_or_map_literal, STATE 989), (sym_pair, STATE 2660), (sym__element, STATE 2749),
     (sym_null_literal, STATE 989), (sym_record_literal, STATE 989),
     (sym__record_literal_no_const, STATE 924), (sym__expression, STATE 2562),
     (sym__real_expression, STATE 660), (sym_throw_expression, STATE 908),
     (sym_rethrow_expression, STATE 908), (sym_assignment_expression, STATE 908),
     (sym_assignable_expression, STATE 1940), (sym_function_expression, STATE 962),
     (sym_if_null_expression, STATE 1477), (sym_conditional_expression, STATE 1477),
     (sym_logical_or_expression, STATE 1477), (sym_logical_and_expression, STATE 1477),
     (sym_equality_expression, STATE 1477), (sym_type_cast_expression, STATE 1477),
     (sym_type_test_expression, STATE 1477), (sym_relational_expression, STATE 1477),
     (sym_bitwise_or_expression, STATE 1477), (sym_bitwise_xor_expression, STATE 1477),
     (sym_bitwise_and_expression, STATE 1477), (sym_shift_expression, STATE 1477),
     (sym_additive_expression, STATE 1477), (sym_multiplicative_expression, STATE 1477),
     (sym__unary_expression, STATE 1121), (sym_unary_expression, STATE 1303),
     (sym__postfix_expression, STATE 1303), (sym_postfix_expression, STATE 1301),
     (sym_spread_element, STATE 2660), (sym_prefix_operator, STATE 431),
     (sym_negation_operator, STATE 1450), (sym__exclamation_operator, STATE 1451),
     (sym_tilde_operator, STATE 1385), (sym_await_expression, STATE 1302),
     (sym_new_expression, STATE 962), (sym_const_object_expression, STATE 962),
     (sym__primary, STATE 668), (sym_parenthesized_expression, STATE 962),
     (sym_constructor_invocation, STATE 643), (sym_constructor_tearoff, STATE 962),
     (sym_type_arguments, STATE 3200), (sym_switch_expression, STATE 962),
     (sym__parenthesized_pattern, STATE 3182), (sym_list_pattern, STATE 3182),
     (sym_map_pattern, STATE 3182), (sym_record_pattern, STATE 3182),
     (sym_object_pattern, STATE 3182), (sym__outer_pattern, STATE 3410),
     (sym_pattern_assignment, STATE 908), (sym_if_element, STATE 2660),
     (sym_for_element, STATE 2660), (sym_type_parameters, STATE 2932),
     (sym__type_name, STATE 2661), (sym__formal_parameter_part, STATE 2339),
     (sym_formal_parameter_list, STATE 2020), (sym__strict_formal_parameter_list, STATE 2016),
     (sym__new_builtin, STATE 2079), (sym_this, STATE 962), (sym_super, STATE 1337),
     (sym_comment, STATE 157), (sym_documentation_comment, STATE 157),
     (aux_sym_string_literal_repeat1, STATE 474), (sym_identifier, ACTIONS 494),
     (anon_sym_POUND, ACTIONS 73), (sym_decimal_integer_literal, ACTIONS 75),
     (sym_hex_integer_literal, ACTIONS 77), (sym_decimal_floating_point_literal, ACTIONS 75),
     (anon_sym_true, ACTIONS 79), (anon_sym_false, ACTIONS 81), (anon_sym_DQUOTE, ACTIONS 83),
     (anon_sym_SQUOTE, ACTIONS 85), (anon_sym_DQUOTE_DQUOTE_DQUOTE, ACTIONS 87),
     (anon_sym_SQUOTE_SQUOTE_SQUOTE, ACTIONS 89), (anon_sym_r_DQUOTE, ACTIONS 91),
     (anon_sym_r_SQUOTE, ACTIONS 93), (anon_sym_r_DQUOTE_DQUOTE_DQUOTE, ACTIONS 95),
     (anon_sym_r_SQUOTE_SQUOTE_SQUOTE, ACTIONS 97), (anon_sym_LBRACE, ACTIONS 442),
     (anon_sym_LBRACK, ACTIONS 103), (anon_sym_null, ACTIONS 105),
     (anon_sym_LPAREN, ACTIONS 498), (anon_sym_throw, ACTIONS 109), (anon_sym_LT, ACTIONS 111),
     (sym_increment_operator, ACTIONS 113), (anon_sym_DOT_DOT_DOT, ACTIONS 167),
     (sym_minus_operator, ACTIONS 117), (anon_sym_BANG, ACTIONS 119),
     (anon_sym_TILDE, ACTIONS 121), (anon_sym_await, ACTIONS 410),
     (anon_sym_switch, ACTIONS 412), (anon_sym_if, ACTIONS 414), (anon_sym_for, ACTIONS 416),
     (sym_rethrow_builtin, ACTIONS 151), (anon_sym_new, ACTIONS 155),
     (sym_const_builtin, ACTIONS 478), (anon_sym_this, ACTIONS 159),
     (anon_sym_super, ACTIONS 161), (anon_sym_SLASH_SLASH, ACTIONS 3),
     (anon_sym_SLASH_STAR, ACTIONS 5), (anon_sym_SLASH_SLASH_SLASH, ACTIONS 7),
     (sym__block_comment, ACTIONS 9), (sym__documentation_block_comment, ACTIONS 11)]"

lemma row_ok_157: "table_row_ok 157 ts_parse_table_157"
  by (simp add: row_simps ts_parse_table_157_def)

definition ts_parse_table_158 :: table_row where
  "ts_parse_table_158 = [
     (sym__bool_literal, STATE 989), (sym__numeric_literal, STATE 989),
     (sym__literal, STATE 962), (sym_symbol_literal, STATE 989), (sym_true, STATE 900),
     (sym_false, STATE 900), (sym_string_literal, STATE 989),
     (sym__string_literal_double_quotes, STATE 627),
     (sym__string_literal_single_quotes, STATE 627),
     (sym__string_literal_double_quotes_multiple, STATE 627),
     (sym__string_literal_single_quotes_multiple, STATE 627),
     (sym__raw_string_literal_double_quotes, STATE 627),
     (sym__raw_string_literal_single_quotes, STATE 627),
     (sym__raw_string_literal_double_quotes_multiple, STATE 627),
     (sym__raw_string_literal_single_quotes_multiple, STATE 627), (sym_list_literal, STATE 989),
     (sym_set_or_map_literal, STATE 989), (sym_pair, STATE 2660), (sym__element, STATE 2598),
     (sym_null_literal, STATE 989), (sym_record_literal, STATE 989),
     (sym__record_literal_no_const, STATE 924), (sym__expression, STATE 2562),
     (sym__real_expression, STATE 660), (sym_throw_expression, STATE 908),
     (sym_rethrow_expression, STATE 908), (sym_assignment_expression, STATE 908),
     (sym_assignable_expression, STATE 1940), (sym_function_expression, STATE 962),
     (sym_if_null_expression, STATE 1477), (sym_conditional_expression, STATE 1477),
     (sym_logical_or_expression, STATE 1477), (sym_logical_and_expression, STATE 1477),
     (sym_equality_expression, STATE 1477), (sym_type_cast_expression, STATE 1477),
     (sym_type_test_expression, STATE 1477), (sym_relational_expression, STATE 1477),
     (sym_bitwise_or_expression, STATE 1477), (sym_bitwise_xor_expression, STATE 1477),
     (sym_bitwise_and_expression, STATE 1477), (sym_shift_expression, STATE 1477),
     (sym_additive_expression, STATE 1477), (sym_multiplicative_expression, STATE 1477),
     (sym__unary_expression, STATE 1121), (sym_unary_expression, STATE 1303),
     (sym__postfix_expression, STATE 1303), (sym_postfix_expression, STATE 1301),
     (sym_spread_element, STATE 2660), (sym_prefix_operator, STATE 431),
     (sym_negation_operator, STATE 1450), (sym__exclamation_operator, STATE 1451),
     (sym_tilde_operator, STATE 1385), (sym_await_expression, STATE 1302),
     (sym_new_expression, STATE 962), (sym_const_object_expression, STATE 962),
     (sym__primary, STATE 668), (sym_parenthesized_expression, STATE 962),
     (sym_constructor_invocation, STATE 643), (sym_constructor_tearoff, STATE 962),
     (sym_type_arguments, STATE 3200), (sym_switch_expression, STATE 962),
     (sym__parenthesized_pattern, STATE 3182), (sym_list_pattern, STATE 3182),
     (sym_map_pattern, STATE 3182), (sym_record_pattern, STATE 3182),
     (sym_object_pattern, STATE 3182), (sym__outer_pattern, STATE 3410),
     (sym_pattern_assignment, STATE 908), (sym_if_element, STATE 2660),
     (sym_for_element, STATE 2660), (sym_type_parameters, STATE 2932),
     (sym__type_name, STATE 2661), (sym__formal_parameter_part, STATE 2339),
     (sym_formal_parameter_list, STATE 2020), (sym__strict_formal_parameter_list, STATE 2016),
     (sym__new_builtin, STATE 2079), (sym_this, STATE 962), (sym_super, STATE 1337),
     (sym_comment, STATE 158), (sym_documentation_comment, STATE 158),
     (aux_sym_string_literal_repeat1, STATE 474), (sym_identifier, ACTIONS 494),
     (anon_sym_POUND, ACTIONS 73), (sym_decimal_integer_literal, ACTIONS 75),
     (sym_hex_integer_literal, ACTIONS 77), (sym_decimal_floating_point_literal, ACTIONS 75),
     (anon_sym_true, ACTIONS 79), (anon_sym_false, ACTIONS 81), (anon_sym_DQUOTE, ACTIONS 83),
     (anon_sym_SQUOTE, ACTIONS 85), (anon_sym_DQUOTE_DQUOTE_DQUOTE, ACTIONS 87),
     (anon_sym_SQUOTE_SQUOTE_SQUOTE, ACTIONS 89), (anon_sym_r_DQUOTE, ACTIONS 91),
     (anon_sym_r_SQUOTE, ACTIONS 93), (anon_sym_r_DQUOTE_DQUOTE_DQUOTE, ACTIONS 95),
     (anon_sym_r_SQUOTE_SQUOTE_SQUOTE, ACTIONS 97), (anon_sym_LBRACE, ACTIONS 442),
     (anon_sym_LBRACK, ACTIONS 103), (anon_sym_null, ACTIONS 105),
     (anon_sym_LPAREN, ACTIONS 498), (anon_sym_throw, ACTIONS 109), (anon_sym_LT, ACTIONS 111),
     (sym_increment_operator, ACTIONS 113), (anon_sym_DOT_DOT_DOT, ACTIONS 167),
     (sym_minus_operator, ACTIONS 117), (anon_sym_BANG, ACTIONS 119),
     (anon_sym_TILDE, ACTIONS 121), (anon_sym_await, ACTIONS 410),
     (anon_sym_switch, ACTIONS 412), (anon_sym_if, ACTIONS 414), (anon_sym_for, ACTIONS 416),
     (sym_rethrow_builtin, ACTIONS 151), (anon_sym_new, ACTIONS 155),
     (sym_const_builtin, ACTIONS 478), (anon_sym_this, ACTIONS 159),
     (anon_sym_super, ACTIONS 161), (anon_sym_SLASH_SLASH, ACTIONS 3),
     (anon_sym_SLASH_STAR, ACTIONS 5), (anon_sym_SLASH_SLASH_SLASH, ACTIONS 7),
     (sym__block_comment, ACTIONS 9), (sym__documentation_block_comment, ACTIONS 11)]"

lemma row_ok_158: "table_row_ok 158 ts_parse_table_158"
  by (simp add: row_simps ts_parse_table_158_def)

definition ts_parse_table_159 :: table_row where
  "ts_parse_table_159 = [
     (sym__bool_literal, STATE 989), (sym__numeric_literal, STATE 989),
     (sym__literal, STATE 962), (sym_symbol_literal, STATE 989), (sym_true, STATE 900),
     (sym_false, STATE 900), (sym_string_literal, STATE 989),
     (sym__string_literal_double_quotes, STATE 627),
     (sym__string_literal_single_quotes, STATE 627),
     (sym__string_literal_double_quotes_multiple, STATE 627),
     (sym__string_literal_single_quotes_multiple, STATE 627),
     (sym__raw_string_literal_double_quotes, STATE 627),
     (sym__raw_string_literal_single_quotes, STATE 627),
     (sym__raw_string_literal_double_quotes_multiple, STATE 627),
     (sym__raw_string_literal_single_quotes_multiple, STATE 627), (sym_list_literal, STATE 989),
     (sym_set_or_map_literal, STATE 989), (sym_pair, STATE 2660), (sym__element, STATE 2838),
     (sym_null_literal, STATE 989), (sym_record_literal, STATE 989),
     (sym__record_literal_no_const, STATE 924), (sym__expression, STATE 2562),
     (sym__real_expression, STATE 660), (sym_throw_expression, STATE 908),
     (sym_rethrow_expression, STATE 908), (sym_assignment_expression, STATE 908),
     (sym_assignable_expression, STATE 1940), (sym_function_expression, STATE 962),
     (sym_if_null_expression, STATE 1477), (sym_conditional_expression, STATE 1477),
     (sym_logical_or_expression, STATE 1477), (sym_logical_and_expression, STATE 1477),
     (sym_equality_expression, STATE 1477), (sym_type_cast_expression, STATE 1477),
     (sym_type_test_expression, STATE 1477), (sym_relational_expression, STATE 1477),
     (sym_bitwise_or_expression, STATE 1477), (sym_bitwise_xor_expression, STATE 1477),
     (sym_bitwise_and_expression, STATE 1477), (sym_shift_expression, STATE 1477),
     (sym_additive_expression, STATE 1477), (sym_multiplicative_expression, STATE 1477),
     (sym__unary_expression, STATE 1121), (sym_unary_expression, STATE 1303),
     (sym__postfix_expression, STATE 1303), (sym_postfix_expression, STATE 1301),
     (sym_spread_element, STATE 2660), (sym_prefix_operator, STATE 431),
     (sym_negation_operator, STATE 1450), (sym__exclamation_operator, STATE 1451),
     (sym_tilde_operator, STATE 1385), (sym_await_expression, STATE 1302),
     (sym_new_expression, STATE 962), (sym_const_object_expression, STATE 962),
     (sym__primary, STATE 668), (sym_parenthesized_expression, STATE 962),
     (sym_constructor_invocation, STATE 643), (sym_constructor_tearoff, STATE 962),
     (sym_type_arguments, STATE 3200), (sym_switch_expression, STATE 962),
     (sym__parenthesized_pattern, STATE 3182), (sym_list_pattern, STATE 3182),
     (sym_map_pattern, STATE 3182), (sym_record_pattern, STATE 3182),
     (sym_object_pattern, STATE 3182), (sym__outer_pattern, STATE 3410),
     (sym_pattern_assignment, STATE 908), (sym_if_element, STATE 2660),
     (sym_for_element, STATE 2660), (sym_type_parameters, STATE 2932),
     (sym__type_name, STATE 2661), (sym__formal_parameter_part, STATE 2339),
     (sym_formal_parameter_list, STATE 2020), (sym__strict_formal_parameter_list, STATE 2016),
     (sym__new_builtin, STATE 2079), (sym_this, STATE 962), (sym_super, STATE 1337),
     (sym_comment, STATE 159), (sym_documentation_comment, STATE 159),
     (aux_sym_string_literal_repeat1, STATE 474), (sym_identifier, ACTIONS 494),
     (anon_sym_POUND, ACTIONS 73), (sym_decimal_integer_literal, ACTIONS 75),
     (sym_hex_integer_literal, ACTIONS 77), (sym_decimal_floating_point_literal, ACTIONS 75),
     (anon_sym_true, ACTIONS 79), (anon_sym_false, ACTIONS 81), (anon_sym_DQUOTE, ACTIONS 83),
     (anon_sym_SQUOTE, ACTIONS 85), (anon_sym_DQUOTE_DQUOTE_DQUOTE, ACTIONS 87),
     (anon_sym_SQUOTE_SQUOTE_SQUOTE, ACTIONS 89), (anon_sym_r_DQUOTE, ACTIONS 91),
     (anon_sym_r_SQUOTE, ACTIONS 93), (anon_sym_r_DQUOTE_DQUOTE_DQUOTE, ACTIONS 95),
     (anon_sym_r_SQUOTE_SQUOTE_SQUOTE, ACTIONS 97), (anon_sym_LBRACE, ACTIONS 442),
     (anon_sym_LBRACK, ACTIONS 103), (anon_sym_null, ACTIONS 105),
     (anon_sym_LPAREN, ACTIONS 498), (anon_sym_throw, ACTIONS 109), (anon_sym_LT, ACTIONS 111),
     (sym_increment_operator, ACTIONS 113), (anon_sym_DOT_DOT_DOT, ACTIONS 167),
     (sym_minus_operator, ACTIONS 117), (anon_sym_BANG, ACTIONS 119),
     (anon_sym_TILDE, ACTIONS 121), (anon_sym_await, ACTIONS 410),
     (anon_sym_switch, ACTIONS 412), (anon_sym_if, ACTIONS 414), (anon_sym_for, ACTIONS 416),
     (sym_rethrow_builtin, ACTIONS 151), (anon_sym_new, ACTIONS 155),
     (sym_const_builtin, ACTIONS 478), (anon_sym_this, ACTIONS 159),
     (anon_sym_super, ACTIONS 161), (anon_sym_SLASH_SLASH, ACTIONS 3),
     (anon_sym_SLASH_STAR, ACTIONS 5), (anon_sym_SLASH_SLASH_SLASH, ACTIONS 7),
     (sym__block_comment, ACTIONS 9), (sym__documentation_block_comment, ACTIONS 11)]"

lemma row_ok_159: "table_row_ok 159 ts_parse_table_159"
  by (simp add: row_simps ts_parse_table_159_def)

definition ts_parse_table_160 :: table_row where
  "ts_parse_table_160 = [
     (sym__bool_literal, STATE 989), (sym__numeric_literal, STATE 989),
     (sym__literal, STATE 962), (sym_symbol_literal, STATE 989), (sym_true, STATE 900),
     (sym_false, STATE 900), (sym_string_literal, STATE 989),
     (sym__string_literal_double_quotes, STATE 627),
     (sym__string_literal_single_quotes, STATE 627),
     (sym__string_literal_double_quotes_multiple, STATE 627),
     (sym__string_literal_single_quotes_multiple, STATE 627),
     (sym__raw_string_literal_double_quotes, STATE 627),
     (sym__raw_string_literal_single_quotes, STATE 627),
     (sym__raw_string_literal_double_quotes_multiple, STATE 627),
     (sym__raw_string_literal_single_quotes_multiple, STATE 627), (sym_list_literal, STATE 989),
     (sym_set_or_map_literal, STATE 989), (sym_pair, STATE 2660), (sym__element, STATE 2600),
     (sym_null_literal, STATE 989), (sym_record_literal, STATE 989),
     (sym__record_literal_no_const, STATE 924), (sym__expression, STATE 2562),
     (sym__real_expression, STATE 660), (sym_throw_expression, STATE 908),
     (sym_rethrow_expression, STATE 908), (sym_assignment_expression, STATE 908),
     (sym_assignable_expression, STATE 1940), (sym_function_expression, STATE 962),
     (sym_if_null_expression, STATE 1477), (sym_conditional_expression, STATE 1477),
     (sym_logical_or_expression, STATE 1477), (sym_logical_and_expression, STATE 1477),
     (sym_equality_expression, STATE 1477), (sym_type_cast_expression, STATE 1477),
     (sym_type_test_expression, STATE 1477), (sym_relational_expression, STATE 1477),
     (sym_bitwise_or_expression, STATE 1477), (sym_bitwise_xor_expression, STATE 1477),
     (sym_bitwise_and_expression, STATE 1477), (sym_shift_expression, STATE 1477),
     (sym_additive_expression, STATE 1477), (sym_multiplicative_expression, STATE 1477),
     (sym__unary_expression, STATE 1121), (sym_unary_expression, STATE 1303),
     (sym__postfix_expression, STATE 1303), (sym_postfix_expression, STATE 1301),
     (sym_spread_element, STATE 2660), (sym_prefix_operator, STATE 431),
     (sym_negation_operator, STATE 1450), (sym__exclamation_operator, STATE 1451),
     (sym_tilde_operator, STATE 1385), (sym_await_expression, STATE 1302),
     (sym_new_expression, STATE 962), (sym_const_object_expression, STATE 962),
     (sym__primary, STATE 668), (sym_parenthesized_expression, STATE 962),
     (sym_constructor_invocation, STATE 643), (sym_constructor_tearoff, STATE 962),
     (sym_type_arguments, STATE 3200), (sym_switch_expression, STATE 962),
     (sym__parenthesized_pattern, STATE 3182), (sym_list_pattern, STATE 3182),
     (sym_map_pattern, STATE 3182), (sym_record_pattern, STATE 3182),
     (sym_object_pattern, STATE 3182), (sym__outer_pattern, STATE 3410),
     (sym_pattern_assignment, STATE 908), (sym_if_element, STATE 2660),
     (sym_for_element, STATE 2660), (sym_type_parameters, STATE 2932),
     (sym__type_name, STATE 2661), (sym__formal_parameter_part, STATE 2339),
     (sym_formal_parameter_list, STATE 2020), (sym__strict_formal_parameter_list, STATE 2016),
     (sym__new_builtin, STATE 2079), (sym_this, STATE 962), (sym_super, STATE 1337),
     (sym_comment, STATE 160), (sym_documentation_comment, STATE 160),
     (aux_sym_string_literal_repeat1, STATE 474), (sym_identifier, ACTIONS 494),
     (anon_sym_POUND, ACTIONS 73), (sym_decimal_integer_literal, ACTIONS 75),
     (sym_hex_integer_literal, ACTIONS 77), (sym_decimal_floating_point_literal, ACTIONS 75),
     (anon_sym_true, ACTIONS 79), (anon_sym_false, ACTIONS 81), (anon_sym_DQUOTE, ACTIONS 83),
     (anon_sym_SQUOTE, ACTIONS 85), (anon_sym_DQUOTE_DQUOTE_DQUOTE, ACTIONS 87),
     (anon_sym_SQUOTE_SQUOTE_SQUOTE, ACTIONS 89), (anon_sym_r_DQUOTE, ACTIONS 91),
     (anon_sym_r_SQUOTE, ACTIONS 93), (anon_sym_r_DQUOTE_DQUOTE_DQUOTE, ACTIONS 95),
     (anon_sym_r_SQUOTE_SQUOTE_SQUOTE, ACTIONS 97), (anon_sym_LBRACE, ACTIONS 442),
     (anon_sym_LBRACK, ACTIONS 103), (anon_sym_null, ACTIONS 105),
     (anon_sym_LPAREN, ACTIONS 498), (anon_sym_throw, ACTIONS 109), (anon_sym_LT, ACTIONS 111),
     (sym_increment_operator, ACTIONS 113), (anon_sym_DOT_DOT_DOT, ACTIONS 167),
     (sym_minus_operator, ACTIONS 117), (anon_sym_BANG, ACTIONS 119),
     (anon_sym_TILDE, ACTIONS 121), (anon_sym_await, ACTIONS 410),
     (anon_sym_switch, ACTIONS 412), (anon_sym_if, ACTIONS 414), (anon_sym_for, ACTIONS 416),
     (sym_rethrow_builtin, ACTIONS 151), (anon_sym_new, ACTIONS 155),
     (sym_const_builtin, ACTIONS 478), (anon_sym_this, ACTIONS 159),
     (anon_sym_super, ACTIONS 161), (anon_sym_SLASH_SLASH, ACTIONS 3),
     (anon_sym_SLASH_STAR, ACTIONS 5), (anon_sym_SLASH_SLASH_SLASH, ACTIONS 7),
     (sym__block_comment, ACTIONS 9), (sym__documentation_block_comment, ACTIONS 11)]"

lemma row_ok_160: "table_row_ok 160 ts_parse_table_160"
  by (simp add: row_simps ts_parse_table_160_def)

definition ts_parse_table_161 :: table_row where
  "ts_parse_table_161 = [
     (sym__bool_literal, STATE 989), (sym__numeric_literal, STATE 989),
     (sym__literal, STATE 962), (sym_symbol_literal, STATE 989), (sym_true, STATE 900),
     (sym_false, STATE 900), (sym_string_literal, STATE 989),
     (sym__string_literal_double_quotes, STATE 627),
     (sym__string_literal_single_quotes, STATE 627),
     (sym__string_literal_double_quotes_multiple, STATE 627),
     (sym__string_literal_single_quotes_multiple, STATE 627),
     (sym__raw_string_literal_double_quotes, STATE 627),
     (sym__raw_string_literal_single_quotes, STATE 627),
     (sym__raw_string_literal_double_quotes_multiple, STATE 627),
     (sym__raw_string_literal_single_quotes_multiple, STATE 627), (sym_list_literal, STATE 989),
     (sym_set_or_map_literal, STATE 989), (sym_null_literal, STATE 989),
     (sym_record_literal, STATE 989), (sym__record_literal_no_const, STATE 924),
     (sym__expression, STATE 3055), (sym__real_expression, STATE 660),
     (sym_throw_expression, STATE 908), (sym_rethrow_expression, STATE 908),
     (sym_assignment_expression, STATE 908), (sym_assignable_expression, STATE 1940),
     (sym_function_expression, STATE 962), (sym_if_null_expression, STATE 1477),
     (sym_conditional_expression, STATE 1477), (sym_logical_or_expression, STATE 1477),
     (sym_logical_and_expression, STATE 1477), (sym_equality_expression, STATE 1477),
     (sym_type_cast_expression, STATE 1477), (sym_type_test_expression, STATE 1477),
     (sym_relational_expression, STATE 1477), (sym_bitwise_or_expression, STATE 1477),
     (sym_bitwise_xor_expression, STATE 1477), (sym_bitwise_and_expression, STATE 1477),
     (sym_shift_expression, STATE 1477), (sym_additive_expression, STATE 1477),
     (sym_multiplicative_expression, STATE 1477), (sym__unary_expression, STATE 1121),
     (sym_unary_expression, STATE 1303), (sym__postfix_expression, STATE 1303),
     (sym_postfix_expression, STATE 1301), (sym_prefix_operator, STATE 431),
     (sym_negation_operator, STATE 1450), (sym__exclamation_operator, STATE 1451),
     (sym_tilde_operator, STATE 1385), (sym_await_expression, STATE 1302),
     (sym_new_expression, STATE 962), (sym_const_object_expression, STATE 962),
     (sym__primary, STATE 668), (sym_parenthesized_expression, STATE 962),
     (sym_constructor_invocation, STATE 643), (sym_constructor_tearoff, STATE 962),
     (sym__argument_list, STATE 3339), (sym__any_argument, STATE 2931),
     (sym_argument, STATE 3051), (sym_named_argument, STATE 3051),
     (sym_type_arguments, STATE 3200), (sym_switch_expression, STATE 962),
     (sym__parenthesized_pattern, STATE 3182), (sym_list_pattern, STATE 3182),
     (sym_map_pattern, STATE 3182), (sym_record_pattern, STATE 3182),
     (sym_object_pattern, STATE 3182), (sym__outer_pattern, STATE 3410),
     (sym_pattern_assignment, STATE 908), (sym_type_parameters, STATE 2932),
     (sym__type_name, STATE 2661), (sym__formal_parameter_part, STATE 2339),
     (sym_formal_parameter_list, STATE 2020), (sym__strict_formal_parameter_list, STATE 2016),
     (sym__new_builtin, STATE 2079), (sym_this, STATE 962), (sym_super, STATE 1337),
     (sym_label, STATE 209), (sym_comment, STATE 161), (sym_documentation_comment, STATE 161),
     (aux_sym_string_literal_repeat1, STATE 474), (sym_identifier, ACTIONS 620),
     (anon_sym_POUND, ACTIONS 73), (sym_decimal_integer_literal, ACTIONS 75),
     (sym_hex_integer_literal, ACTIONS 77), (sym_decimal_floating_point_literal, ACTIONS 75),
     (anon_sym_true, ACTIONS 79), (anon_sym_false, ACTIONS 81), (anon_sym_DQUOTE, ACTIONS 83),
     (anon_sym_SQUOTE, ACTIONS 85), (anon_sym_DQUOTE_DQUOTE_DQUOTE, ACTIONS 87),
     (anon_sym_SQUOTE_SQUOTE_SQUOTE, ACTIONS 89), (anon_sym_r_DQUOTE, ACTIONS 91),
     (anon_sym_r_SQUOTE, ACTIONS 93), (anon_sym_r_DQUOTE_DQUOTE_DQUOTE, ACTIONS 95),
     (anon_sym_r_SQUOTE_SQUOTE_SQUOTE, ACTIONS 97), (anon_sym_LBRACE, ACTIONS 442),
     (anon_sym_LBRACK, ACTIONS 103), (anon_sym_null, ACTIONS 105),
     (anon_sym_LPAREN, ACTIONS 498), (anon_sym_RPAREN, ACTIONS 622),
     (anon_sym_throw, ACTIONS 109), (anon_sym_LT, ACTIONS 111),
     (sym_increment_operator, ACTIONS 113), (sym_minus_operator, ACTIONS 117),
     (anon_sym_BANG, ACTIONS 119), (anon_sym_TILDE, ACTIONS 121), (anon_sym_await, ACTIONS 432),
     (anon_sym_switch, ACTIONS 412), (sym_rethrow_builtin, ACTIONS 151),
     (anon_sym_new, ACTIONS 155), (sym_const_builtin, ACTIONS 478), (anon_sym_this, ACTIONS 159),
     (anon_sym_super, ACTIONS 161), (anon_sym_SLASH_SLASH, ACTIONS 3),
     (anon_sym_SLASH_STAR, ACTIONS 5), (anon_sym_SLASH_SLASH_SLASH, ACTIONS 7),
     (sym__block_comment, ACTIONS 9), (sym__documentation_block_comment, ACTIONS 11)]"

lemma row_ok_161: "table_row_ok 161 ts_parse_table_161"
  by (simp add: row_simps ts_parse_table_161_def)

definition ts_parse_table_162 :: table_row where
  "ts_parse_table_162 = [
     (sym__bool_literal, STATE 989), (sym__numeric_literal, STATE 989),
     (sym__literal, STATE 962), (sym_symbol_literal, STATE 989), (sym_true, STATE 900),
     (sym_false, STATE 900), (sym_string_literal, STATE 989),
     (sym__string_literal_double_quotes, STATE 627),
     (sym__string_literal_single_quotes, STATE 627),
     (sym__string_literal_double_quotes_multiple, STATE 627),
     (sym__string_literal_single_quotes_multiple, STATE 627),
     (sym__raw_string_literal_double_quotes, STATE 627),
     (sym__raw_string_literal_single_quotes, STATE 627),
     (sym__raw_string_literal_double_quotes_multiple, STATE 627),
     (sym__raw_string_literal_single_quotes_multiple, STATE 627), (sym_list_literal, STATE 989),
     (sym_set_or_map_literal, STATE 989), (sym_null_literal, STATE 989),
     (sym_record_literal, STATE 989), (sym__record_literal_no_const, STATE 924),
     (sym__expression, STATE 3055), (sym__real_expression, STATE 660),
     (sym_throw_expression, STATE 908), (sym_rethrow_expression, STATE 908),
     (sym_assignment_expression, STATE 908), (sym_assignable_expression, STATE 1940),
     (sym_function_expression, STATE 962), (sym_if_null_expression, STATE 1477),
     (sym_conditional_expression, STATE 1477), (sym_logical_or_expression, STATE 1477),
     (sym_logical_and_expression, STATE 1477), (sym_equality_expression, STATE 1477),
     (sym_type_cast_expression, STATE 1477), (sym_type_test_expression, STATE 1477),
     (sym_relational_expression, STATE 1477), (sym_bitwise_or_expression, STATE 1477),
     (sym_bitwise_xor_expression, STATE 1477), (sym_bitwise_and_expression, STATE 1477),
     (sym_shift_expression, STATE 1477), (sym_additive_expression, STATE 1477),
     (sym_multiplicative_expression, STATE 1477), (sym__unary_expression, STATE 1121),
     (sym_unary_expression, STATE 1303), (sym__postfix_expression, STATE 1303),
     (sym_postfix_expression, STATE 1301), (sym_prefix_operator, STATE 431),
     (sym_negation_operator, STATE 1450), (sym__exclamation_operator, STATE 1451),
     (sym_tilde_operator, STATE 1385), (sym_await_expression, STATE 1302),
     (sym_new_expression, STATE 962), (sym_const_object_expression, STATE 962),
     (sym__primary, STATE 668), (sym_parenthesized_expression, STATE 962),
     (sym_constructor_invocation, STATE 643), (sym_constructor_tearoff, STATE 962),
     (sym__argument_list, STATE 3414), (sym__any_argument, STATE 2931),
     (sym_argument, STATE 3051), (sym_named_argument, STATE 3051),
     (sym_type_arguments, STATE 3200), (sym_switch_expression, STATE 962),
     (sym__parenthesized_pattern, STATE 3182), (sym_list_pattern, STATE 3182),
     (sym_map_pattern, STATE 3182), (sym_record_pattern, STATE 3182),
     (sym_object_pattern, STATE 3182), (sym__outer_pattern, STATE 3410),
     (sym_pattern_assignment, STATE 908), (sym_type_parameters, STATE 2932),
     (sym__type_name, STATE 2661), (sym__formal_parameter_part, STATE 2339),
     (sym_formal_parameter_list, STATE 2020), (sym__strict_formal_parameter_list, STATE 2016),
     (sym__new_builtin, STATE 2079), (sym_this, STATE 962), (sym_super, STATE 1337),
     (sym_label, STATE 209), (sym_comment, STATE 162), (sym_documentation_comment, STATE 162),
     (aux_sym_string_literal_repeat1, STATE 474), (sym_identifier, ACTIONS 620),
     (anon_sym_POUND, ACTIONS 73), (sym_decimal_integer_literal, ACTIONS 75),
     (sym_hex_integer_literal, ACTIONS 77), (sym_decimal_floating_point_literal, ACTIONS 75),
     (anon_sym_true, ACTIONS 79), (anon_sym_false, ACTIONS 81), (anon_sym_DQUOTE, ACTIONS 83),
     (anon_sym_SQUOTE, ACTIONS 85), (anon_sym_DQUOTE_DQUOTE_DQUOTE, ACTIONS 87),
     (anon_sym_SQUOTE_SQUOTE_SQUOTE, ACTIONS 89), (anon_sym_r_DQUOTE, ACTIONS 91),
     (anon_sym_r_SQUOTE, ACTIONS 93), (anon_sym_r_DQUOTE_DQUOTE_DQUOTE, ACTIONS 95),
     (anon_sym_r_SQUOTE_SQUOTE_SQUOTE, ACTIONS 97), (anon_sym_LBRACE, ACTIONS 442),
     (anon_sym_LBRACK, ACTIONS 103), (anon_sym_null, ACTIONS 105),
     (anon_sym_LPAREN, ACTIONS 498), (anon_sym_RPAREN, ACTIONS 624),
     (anon_sym_throw, ACTIONS 109), (anon_sym_LT, ACTIONS 111),
     (sym_increment_operator, ACTIONS 113), (sym_minus_operator, ACTIONS 117),
     (anon_sym_BANG, ACTIONS 119), (anon_sym_TILDE, ACTIONS 121), (anon_sym_await, ACTIONS 432),
     (anon_sym_switch, ACTIONS 412), (sym_rethrow_builtin, ACTIONS 151),
     (anon_sym_new, ACTIONS 155), (sym_const_builtin, ACTIONS 478), (anon_sym_this, ACTIONS 159),
     (anon_sym_super, ACTIONS 161), (anon_sym_SLASH_SLASH, ACTIONS 3),
     (anon_sym_SLASH_STAR, ACTIONS 5), (anon_sym_SLASH_SLASH_SLASH, ACTIONS 7),
     (sym__block_comment, ACTIONS 9), (sym__documentation_block_comment, ACTIONS 11)]"

lemma row_ok_162: "table_row_ok 162 ts_parse_table_162"
  by (simp add: row_simps ts_parse_table_162_def)

definition ts_parse_table_163 :: table_row where
  "ts_parse_table_163 = [
     (sym__bool_literal, STATE 989), (sym__numeric_literal, STATE 989),
     (sym__literal, STATE 962), (sym_symbol_literal, STATE 989), (sym_true, STATE 900),
     (sym_false, STATE 900), (sym_string_literal, STATE 989),
     (sym__string_literal_double_quotes, STATE 627),
     (sym__string_literal_single_quotes, STATE 627),
     (sym__string_literal_double_quotes_multiple, STATE 627),
     (sym__string_literal_single_quotes_multiple, STATE 627),
     (sym__raw_string_literal_double_quotes, STATE 627),
     (sym__raw_string_literal_single_quotes, STATE 627),
     (sym__raw_string_literal_double_quotes_multiple, STATE 627),
     (sym__raw_string_literal_single_quotes_multiple, STATE 627), (sym_list_literal, STATE 989),
     (sym_set_or_map_literal, STATE 989), (sym_null_literal, STATE 989),
     (sym_record_literal, STATE 989), (sym__record_literal_no_const, STATE 924),
     (sym__expression, STATE 3055), (sym__real_expression, STATE 660),
     (sym_throw_expression, STATE 908), (sym_rethrow_expression, STATE 908),
     (sym_assignment_expression, STATE 908), (sym_assignable_expression, STATE 1940),
     (sym_function_expression, STATE 962), (sym_if_null_expression, STATE 1477),
     (sym_conditional_expression, STATE 1477), (sym_logical_or_expression, STATE 1477),
     (sym_logical_and_expression, STATE 1477), (sym_equality_expression, STATE 1477),
     (sym_type_cast_expression, STATE 1477), (sym_type_test_expression, STATE 1477),
     (sym_relational_expression, STATE 1477), (sym_bitwise_or_expression, STATE 1477),
     (sym_bitwise_xor_expression, STATE 1477), (sym_bitwise_and_expression, STATE 1477),
     (sym_shift_expression, STATE 1477), (sym_additive_expression, STATE 1477),
     (sym_multiplicative_expression, STATE 1477), (sym__unary_expression, STATE 1121),
     (sym_unary_expression, STATE 1303), (sym__postfix_expression, STATE 1303),
     (sym_postfix_expression, STATE 1301), (sym_prefix_operator, STATE 431),
     (sym_negation_operator, STATE 1450), (sym__exclamation_operator, STATE 1451),
     (sym_tilde_operator, STATE 1385), (sym_await_expression, STATE 1302),
     (sym_new_expression, STATE 962), (sym_const_object_expression, STATE 962),
     (sym__primary, STATE 668), (sym_parenthesized_expression, STATE 962),
     (sym_constructor_invocation, STATE 643), (sym_constructor_tearoff, STATE 962),
     (sym__argument_list, STATE 3384), (sym__any_argument, STATE 2931),
     (sym_argument, STATE 3051), (sym_named_argument, STATE 3051),
     (sym_type_arguments, STATE 3200), (sym_switch_expression, STATE 962),
     (sym__parenthesized_pattern, STATE 3182), (sym_list_pattern, STATE 3182),
     (sym_map_pattern, STATE 3182), (sym_record_pattern, STATE 3182),
     (sym_object_pattern, STATE 3182), (sym__outer_pattern, STATE 3410),
     (sym_pattern_assignment, STATE 908), (sym_type_parameters, STATE 2932),
     (sym__type_name, STATE 2661), (sym__formal_parameter_part, STATE 2339),
     (sym_formal_parameter_list, STATE 2020), (sym__strict_formal_parameter_list, STATE 2016),
     (sym__new_builtin, STATE 2079), (sym_this, STATE 962), (sym_super, STATE 1337),
     (sym_label, STATE 209), (sym_comment, STATE 163), (sym_documentation_comment, STATE 163),
     (aux_sym_string_literal_repeat1, STATE 474), (sym_identifier, ACTIONS 620),
     (anon_sym_POUND, ACTIONS 73), (sym_decimal_integer_literal, ACTIONS 75),
     (sym_hex_integer_literal, ACTIONS 77), (sym_decimal_floating_point_literal, ACTIONS 75),
     (anon_sym_true, ACTIONS 79), (anon_sym_false, ACTIONS 81), (anon_sym_DQUOTE, ACTIONS 83),
     (anon_sym_SQUOTE, ACTIONS 85), (anon_sym_DQUOTE_DQUOTE_DQUOTE, ACTIONS 87),
     (anon_sym_SQUOTE_SQUOTE_SQUOTE, ACTIONS 89), (anon_sym_r_DQUOTE, ACTIONS 91),
     (anon_sym_r_SQUOTE, ACTIONS 93), (anon_sym_r_DQUOTE_DQUOTE_DQUOTE, ACTIONS 95),
     (anon_sym_r_SQUOTE_SQUOTE_SQUOTE, ACTIONS 97), (anon_sym_LBRACE, ACTIONS 442),
     (anon_sym_LBRACK, ACTIONS 103), (anon_sym_null, ACTIONS 105),
     (anon_sym_LPAREN, ACTIONS 498), (anon_sym_RPAREN, ACTIONS 626),
     (anon_sym_throw, ACTIONS 109), (anon_sym_LT, ACTIONS 111),
     (sym_increment_operator, ACTIONS 113), (sym_minus_operator, ACTIONS 117),
     (anon_sym_BANG, ACTIONS 119), (anon_sym_TILDE, ACTIONS 121), (anon_sym_await, ACTIONS 432),
     (anon_sym_switch, ACTIONS 412), (sym_rethrow_builtin, ACTIONS 151),
     (anon_sym_new, ACTIONS 155), (sym_const_builtin, ACTIONS 478), (anon_sym_this, ACTIONS 159),
     (anon_sym_super, ACTIONS 161), (anon_sym_SLASH_SLASH, ACTIONS 3),
     (anon_sym_SLASH_STAR, ACTIONS 5), (anon_sym_SLASH_SLASH_SLASH, ACTIONS 7),
     (sym__block_comment, ACTIONS 9), (sym__documentation_block_comment, ACTIONS 11)]"

lemma row_ok_163: "table_row_ok 163 ts_parse_table_163"
  by (simp add: row_simps ts_parse_table_163_def)

definition ts_parse_table_164 :: table_row where
  "ts_parse_table_164 = [
     (sym__bool_literal, STATE 989), (sym__numeric_literal, STATE 989),
     (sym__literal, STATE 962), (sym_symbol_literal, STATE 989), (sym_true, STATE 900),
     (sym_false, STATE 900), (sym_string_literal, STATE 989),
     (sym__string_literal_double_quotes, STATE 627),
     (sym__string_literal_single_quotes, STATE 627),
     (sym__string_literal_double_quotes_multiple, STATE 627),
     (sym__string_literal_single_quotes_multiple, STATE 627),
     (sym__raw_string_literal_double_quotes, STATE 627),
     (sym__raw_string_literal_single_quotes, STATE 627),
     (sym__raw_string_literal_double_quotes_multiple, STATE 627),
     (sym__raw_string_literal_single_quotes_multiple, STATE 627), (sym_list_literal, STATE 989),
     (sym_set_or_map_literal, STATE 989), (sym_null_literal, STATE 989),
     (sym_record_literal, STATE 989), (sym__record_literal_no_const, STATE 924),
     (sym__expression, STATE 3055), (sym__real_expression, STATE 660),
     (sym_throw_expression, STATE 908), (sym_rethrow_expression, STATE 908),
     (sym_assignment_expression, STATE 908), (sym_assignable_expression, STATE 1940),
     (sym_function_expression, STATE 962), (sym_if_null_expression, STATE 1477),
     (sym_conditional_expression, STATE 1477), (sym_logical_or_expression, STATE 1477),
     (sym_logical_and_expression, STATE 1477), (sym_equality_expression, STATE 1477),
     (sym_type_cast_expression, STATE 1477), (sym_type_test_expression, STATE 1477),
     (sym_relational_expression, STATE 1477), (sym_bitwise_or_expression, STATE 1477),
     (sym_bitwise_xor_expression, STATE 1477), (sym_bitwise_and_expression, STATE 1477),
     (sym_shift_expression, STATE 1477), (sym_additive_expression, STATE 1477),
     (sym_multiplicative_expression, STATE 1477), (sym__unary_expression, STATE 1121),
     (sym_unary_expression, STATE 1303), (sym__postfix_expression, STATE 1303),
     (sym_postfix_expression, STATE 1301), (sym_prefix_operator, STATE 431),
     (sym_negation_operator, STATE 1450), (sym__exclamation_operator, STATE 1451),
     (sym_tilde_operator, STATE 1385), (sym_await_expression, STATE 1302),
     (sym_new_expression, STATE 962), (sym_const_object_expression, STATE 962),
     (sym__primary, STATE 668), (sym_parenthesized_expression, STATE 962),
     (sym_constructor_invocation, STATE 643), (sym_constructor_tearoff, STATE 962),
     (sym__argument_list, STATE 3375), (sym__any_argument, STATE 2931),
     (sym_argument, STATE 3051), (sym_named_argument, STATE 3051),
     (sym_type_arguments, STATE 3200), (sym_switch_expression, STATE 962),
     (sym__parenthesized_pattern, STATE 3182), (sym_list_pattern, STATE 3182),
     (sym_map_pattern, STATE 3182), (sym_record_pattern, STATE 3182),
     (sym_object_pattern, STATE 3182), (sym__outer_pattern, STATE 3410),
     (sym_pattern_assignment, STATE 908), (sym_type_parameters, STATE 2932),
     (sym__type_name, STATE 2661), (sym__formal_parameter_part, STATE 2339),
     (sym_formal_parameter_list, STATE 2020), (sym__strict_formal_parameter_list, STATE 2016),
     (sym__new_builtin, STATE 2079), (sym_this, STATE 962), (sym_super, STATE 1337),
     (sym_label, STATE 209), (sym_comment, STATE 164), (sym_documentation_comment, STATE 164),
     (aux_sym_string_literal_repeat1, STATE 474), (sym_identifier, ACTIONS 620),
     (anon_sym_POUND, ACTIONS 73), (sym_decimal_integer_literal, ACTIONS 75),
     (sym_hex_integer_literal, ACTIONS 77), (sym_decimal_floating_point_literal, ACTIONS 75),
     (anon_sym_true, ACTIONS 79), (anon_sym_false, ACTIONS 81), (anon_sym_DQUOTE, ACTIONS 83),
     (anon_sym_SQUOTE, ACTIONS 85), (anon_sym_DQUOTE_DQUOTE_DQUOTE, ACTIONS 87),
     (anon_sym_SQUOTE_SQUOTE_SQUOTE, ACTIONS 89), (anon_sym_r_DQUOTE, ACTIONS 91),
     (anon_sym_r_SQUOTE, ACTIONS 93), (anon_sym_r_DQUOTE_DQUOTE_DQUOTE, ACTIONS 95),
     (anon_sym_r_SQUOTE_SQUOTE_SQUOTE, ACTIONS 97), (anon_sym_LBRACE, ACTIONS 442),
     (anon_sym_LBRACK, ACTIONS 103), (anon_sym_null, ACTIONS 105),
     (anon_sym_LPAREN, ACTIONS 498), (anon_sym_RPAREN, ACTIONS 628),
     (anon_sym_throw, ACTIONS 109), (anon_sym_LT, ACTIONS 111),
     (sym_increment_operator, ACTIONS 113), (sym_minus_operator, ACTIONS 117),
     (anon_sym_BANG, ACTIONS 119), (anon_sym_TILDE, ACTIONS 121), (anon_sym_await, ACTIONS 432),
     (anon_sym_switch, ACTIONS 412), (sym_rethrow_builtin, ACTIONS 151),
     (anon_sym_new, ACTIONS 155), (sym_const_builtin, ACTIONS 478), (anon_sym_this, ACTIONS 159),
     (anon_sym_super, ACTIONS 161), (anon_sym_SLASH_SLASH, ACTIONS 3),
     (anon_sym_SLASH_STAR, ACTIONS 5), (anon_sym_SLASH_SLASH_SLASH, ACTIONS 7),
     (sym__block_comment, ACTIONS 9), (sym__documentation_block_comment, ACTIONS 11)]"

lemma row_ok_164: "table_row_ok 164 ts_parse_table_164"
  by (simp add: row_simps ts_parse_table_164_def)

definition ts_parse_table_165 :: table_row where
  "ts_parse_table_165 = [
     (sym__bool_literal, STATE 989), (sym__numeric_literal, STATE 989),
     (sym__literal, STATE 962), (sym_symbol_literal, STATE 989), (sym_true, STATE 900),
     (sym_false, STATE 900), (sym_string_literal, STATE 989),
     (sym__string_literal_double_quotes, STATE 627),
     (sym__string_literal_single_quotes, STATE 627),
     (sym__string_literal_double_quotes_multiple, STATE 627),
     (sym__string_literal_single_quotes_multiple, STATE 627),
     (sym__raw_string_literal_double_quotes, STATE 627),
     (sym__raw_string_literal_single_quotes, STATE 627),
     (sym__raw_string_literal_double_quotes_multiple, STATE 627),
     (sym__raw_string_literal_single_quotes_multiple, STATE 627), (sym_list_literal, STATE 989),
     (sym_set_or_map_literal, STATE 989), (sym_null_literal, STATE 989),
     (sym_record_literal, STATE 989), (sym__record_literal_no_const, STATE 924),
     (sym__expression, STATE 3055), (sym__real_expression, STATE 660),
     (sym_throw_expression, STATE 908), (sym_rethrow_expression, STATE 908),
     (sym_assignment_expression, STATE 908), (sym_assignable_expression, STATE 1940),
     (sym_function_expression, STATE 962), (sym_if_null_expression, STATE 1477),
     (sym_conditional_expression, STATE 1477), (sym_logical_or_expression, STATE 1477),
     (sym_logical_and_expression, STATE 1477), (sym_equality_expression, STATE 1477),
     (sym_type_cast_expression, STATE 1477), (sym_type_test_expression, STATE 1477),
     (sym_relational_expression, STATE 1477), (sym_bitwise_or_expression, STATE 1477),
     (sym_bitwise_xor_expression, STATE 1477), (sym_bitwise_and_expression, STATE 1477),
     (sym_shift_expression, STATE 1477), (sym_additive_expression, STATE 1477),
     (sym_multiplicative_expression, STATE 1477), (sym__unary_expression, STATE 1121),
     (sym_unary_expression, STATE 1303), (sym__postfix_expression, STATE 1303),
     (sym_postfix_expression, STATE 1301), (sym_prefix_operator, STATE 431),
     (sym_negation_operator, STATE 1450), (sym__exclamation_operator, STATE 1451),
     (sym_tilde_operator, STATE 1385), (sym_await_expression, STATE 1302),
     (sym_new_expression, STATE 962), (sym_const_object_expression, STATE 962),
     (sym__primary, STATE 668), (sym_parenthesized_expression, STATE 962),
     (sym_constructor_invocation, STATE 643), (sym_constructor_tearoff, STATE 962),
     (sym__argument_list, STATE 3526), (sym__any_argument, STATE 2931),
     (sym_argument, STATE 3051), (sym_named_argument, STATE 3051),
     (sym_type_arguments, STATE 3200), (sym_switch_expression, STATE 962),
     (sym__parenthesized_pattern, STATE 3182), (sym_list_pattern, STATE 3182),
     (sym_map_pattern, STATE 3182), (sym_record_pattern, STATE 3182),
     (sym_object_pattern, STATE 3182), (sym__outer_pattern, STATE 3410),
     (sym_pattern_assignment, STATE 908), (sym_type_parameters, STATE 2932),
     (sym__type_name, STATE 2661), (sym__formal_parameter_part, STATE 2339),
     (sym_formal_parameter_list, STATE 2020), (sym__strict_formal_parameter_list, STATE 2016),
     (sym__new_builtin, STATE 2079), (sym_this, STATE 962), (sym_super, STATE 1337),
     (sym_label, STATE 209), (sym_comment, STATE 165), (sym_documentation_comment, STATE 165),
     (aux_sym_string_literal_repeat1, STATE 474), (sym_identifier, ACTIONS 620),
     (anon_sym_POUND, ACTIONS 73), (sym_decimal_integer_literal, ACTIONS 75),
     (sym_hex_integer_literal, ACTIONS 77), (sym_decimal_floating_point_literal, ACTIONS 75),
     (anon_sym_true, ACTIONS 79), (anon_sym_false, ACTIONS 81), (anon_sym_DQUOTE, ACTIONS 83),
     (anon_sym_SQUOTE, ACTIONS 85), (anon_sym_DQUOTE_DQUOTE_DQUOTE, ACTIONS 87),
     (anon_sym_SQUOTE_SQUOTE_SQUOTE, ACTIONS 89), (anon_sym_r_DQUOTE, ACTIONS 91),
     (anon_sym_r_SQUOTE, ACTIONS 93), (anon_sym_r_DQUOTE_DQUOTE_DQUOTE, ACTIONS 95),
     (anon_sym_r_SQUOTE_SQUOTE_SQUOTE, ACTIONS 97), (anon_sym_LBRACE, ACTIONS 442),
     (anon_sym_LBRACK, ACTIONS 103), (anon_sym_null, ACTIONS 105),
     (anon_sym_LPAREN, ACTIONS 498), (anon_sym_RPAREN, ACTIONS 630),
     (anon_sym_throw, ACTIONS 109), (anon_sym_LT, ACTIONS 111),
     (sym_increment_operator, ACTIONS 113), (sym_minus_operator, ACTIONS 117),
     (anon_sym_BANG, ACTIONS 119), (anon_sym_TILDE, ACTIONS 121), (anon_sym_await, ACTIONS 432),
     (anon_sym_switch, ACTIONS 412), (sym_rethrow_builtin, ACTIONS 151),
     (anon_sym_new, ACTIONS 155), (sym_const_builtin, ACTIONS 478), (anon_sym_this, ACTIONS 159),
     (anon_sym_super, ACTIONS 161), (anon_sym_SLASH_SLASH, ACTIONS 3),
     (anon_sym_SLASH_STAR, ACTIONS 5), (anon_sym_SLASH_SLASH_SLASH, ACTIONS 7),
     (sym__block_comment, ACTIONS 9), (sym__documentation_block_comment, ACTIONS 11)]"

lemma row_ok_165: "table_row_ok 165 ts_parse_table_165"
  by (simp add: row_simps ts_parse_table_165_def)

definition ts_parse_table_166 :: table_row where
  "ts_parse_table_166 = [
     (sym__bool_literal, STATE 989), (sym__numeric_literal, STATE 989),
     (sym__literal, STATE 962), (sym_symbol_literal, STATE 989), (sym_true, STATE 900),
     (sym_false, STATE 900), (sym_string_literal, STATE 989),
     (sym__string_literal_double_quotes, STATE 627),
     (sym__string_literal_single_quotes, STATE 627),
     (sym__string_literal_double_quotes_multiple, STATE 627),
     (sym__string_literal_single_quotes_multiple, STATE 627),
     (sym__raw_string_literal_double_quotes, STATE 627),
     (sym__raw_string_literal_single_quotes, STATE 627),
     (sym__raw_string_literal_double_quotes_multiple, STATE 627),
     (sym__raw_string_literal_single_quotes_multiple, STATE 627), (sym_list_literal, STATE 989),
     (sym_set_or_map_literal, STATE 989), (sym_null_literal, STATE 989),
     (sym_record_literal, STATE 989), (sym__record_literal_no_const, STATE 924),
     (sym__expression, STATE 3055), (sym__real_expression, STATE 660),
     (sym_throw_expression, STATE 908), (sym_rethrow_expression, STATE 908),
     (sym_assignment_expression, STATE 908), (sym_assignable_expression, STATE 1940),
     (sym_function_expression, STATE 962), (sym_if_null_expression, STATE 1477),
     (sym_conditional_expression, STATE 1477), (sym_logical_or_expression, STATE 1477),
     (sym_logical_and_expression, STATE 1477), (sym_equality_expression, STATE 1477),
     (sym_type_cast_expression, STATE 1477), (sym_type_test_expression, STATE 1477),
     (sym_relational_expression, STATE 1477), (sym_bitwise_or_expression, STATE 1477),
     (sym_bitwise_xor_expression, STATE 1477), (sym_bitwise_and_expression, STATE 1477),
     (sym_shift_expression, STATE 1477), (sym_additive_expression, STATE 1477),
     (sym_multiplicative_expression, STATE 1477), (sym__unary_expression, STATE 1121),
     (sym_unary_expression, STATE 1303), (sym__postfix_expression, STATE 1303),
     (sym_postfix_expression, STATE 1301), (sym_prefix_operator, STATE 431),
     (sym_negation_operator, STATE 1450), (sym__exclamation_operator, STATE 1451),
     (sym_tilde_operator, STATE 1385), (sym_await_expression, STATE 1302),
     (sym_new_expression, STATE 962), (sym_const_object_expression, STATE 962),
     (sym__primary, STATE 668), (sym_parenthesized_expression, STATE 962),
     (sym_constructor_invocation, STATE 643), (sym_constructor_tearoff, STATE 962),
     (sym__argument_list, STATE 3363), (sym__any_argument, STATE 2931),
     (sym_argument, STATE 3051), (sym_named_argument, STATE 3051),
     (sym_type_arguments, STATE 3200), (sym_switch_expression, STATE 962),
     (sym__parenthesized_pattern, STATE 3182), (sym_list_pattern, STATE 3182),
     (sym_map_pattern, STATE 3182), (sym_record_pattern, STATE 3182),
     (sym_object_pattern, STATE 3182), (sym__outer_pattern, STATE 3410),
     (sym_pattern_assignment, STATE 908), (sym_type_parameters, STATE 2932),
     (sym__type_name, STATE 2661), (sym__formal_parameter_part, STATE 2339),
     (sym_formal_parameter_list, STATE 2020), (sym__strict_formal_parameter_list, STATE 2016),
     (sym__new_builtin, STATE 2079), (sym_this, STATE 962), (sym_super, STATE 1337),
     (sym_label, STATE 209), (sym_comment, STATE 166), (sym_documentation_comment, STATE 166),
     (aux_sym_string_literal_repeat1, STATE 474), (sym_identifier, ACTIONS 620),
     (anon_sym_POUND, ACTIONS 73), (sym_decimal_integer_literal, ACTIONS 75),
     (sym_hex_integer_literal, ACTIONS 77), (sym_decimal_floating_point_literal, ACTIONS 75),
     (anon_sym_true, ACTIONS 79), (anon_sym_false, ACTIONS 81), (anon_sym_DQUOTE, ACTIONS 83),
     (anon_sym_SQUOTE, ACTIONS 85), (anon_sym_DQUOTE_DQUOTE_DQUOTE, ACTIONS 87),
     (anon_sym_SQUOTE_SQUOTE_SQUOTE, ACTIONS 89), (anon_sym_r_DQUOTE, ACTIONS 91),
     (anon_sym_r_SQUOTE, ACTIONS 93), (anon_sym_r_DQUOTE_DQUOTE_DQUOTE, ACTIONS 95),
     (anon_sym_r_SQUOTE_SQUOTE_SQUOTE, ACTIONS 97), (anon_sym_LBRACE, ACTIONS 442),
     (anon_sym_LBRACK, ACTIONS 103), (anon_sym_null, ACTIONS 105),
     (anon_sym_LPAREN, ACTIONS 498), (anon_sym_RPAREN, ACTIONS 632),
     (anon_sym_throw, ACTIONS 109), (anon_sym_LT, ACTIONS 111),
     (sym_increment_operator, ACTIONS 113), (sym_minus_operator, ACTIONS 117),
     (anon_sym_BANG, ACTIONS 119), (anon_sym_TILDE, ACTIONS 121), (anon_sym_await, ACTIONS 432),
     (anon_sym_switch, ACTIONS 412), (sym_rethrow_builtin, ACTIONS 151),
     (anon_sym_new, ACTIONS 155), (sym_const_builtin, ACTIONS 478), (anon_sym_this, ACTIONS 159),
     (anon_sym_super, ACTIONS 161), (anon_sym_SLASH_SLASH, ACTIONS 3),
     (anon_sym_SLASH_STAR, ACTIONS 5), (anon_sym_SLASH_SLASH_SLASH, ACTIONS 7),
     (sym__block_comment, ACTIONS 9), (sym__documentation_block_comment, ACTIONS 11)]"

lemma row_ok_166: "table_row_ok 166 ts_parse_table_166"
  by (simp add: row_simps ts_parse_table_166_def)

definition ts_parse_table_167 :: table_row where
  "ts_parse_table_167 = [
     (sym__bool_literal, STATE 989), (sym__numeric_literal, STATE 989),
     (sym__literal, STATE 962), (sym_symbol_literal, STATE 989), (sym_true, STATE 900),
     (sym_false, STATE 900), (sym_string_literal, STATE 989),
     (sym__string_literal_double_quotes, STATE 627),
     (sym__string_literal_single_quotes, STATE 627),
     (sym__string_literal_double_quotes_multiple, STATE 627),
     (sym__string_literal_single_quotes_multiple, STATE 627),
     (sym__raw_string_literal_double_quotes, STATE 627),
     (sym__raw_string_literal_single_quotes, STATE 627),
     (sym__raw_string_literal_double_quotes_multiple, STATE 627),
     (sym__raw_string_literal_single_quotes_multiple, STATE 627), (sym_list_literal, STATE 989),
     (sym_set_or_map_literal, STATE 989), (sym_null_literal, STATE 989),
     (sym_record_literal, STATE 989), (sym__record_literal_no_const, STATE 924),
     (sym__expression, STATE 3055), (sym__real_expression, STATE 660),
     (sym_throw_expression, STATE 908), (sym_rethrow_expression, STATE 908),
     (sym_assignment_expression, STATE 908), (sym_assignable_expression, STATE 1940),
     (sym_function_expression, STATE 962), (sym_if_null_expression, STATE 1477),
     (sym_conditional_expression, STATE 1477), (sym_logical_or_expression, STATE 1477),
     (sym_logical_and_expression, STATE 1477), (sym_equality_expression, STATE 1477),
     (sym_type_cast_expression, STATE 1477), (sym_type_test_expression, STATE 1477),
     (sym_relational_expression, STATE 1477), (sym_bitwise_or_expression, STATE 1477),
     (sym_bitwise_xor_expression, STATE 1477), (sym_bitwise_and_expression, STATE 1477),
     (sym_shift_expression, STATE 1477), (sym_additive_expression, STATE 1477),
     (sym_multiplicative_expression, STATE 1477), (sym__unary_expression, STATE 1121),
     (sym_unary_expression, STATE 1303), (sym__postfix_expression, STATE 1303),
     (sym_postfix_expression, STATE 1301), (sym_prefix_operator, STATE 431),
     (sym_negation_operator, STATE 1450), (sym__exclamation_operator, STATE 1451),
     (sym_tilde_operator, STATE 1385), (sym_await_expression, STATE 1302),
     (sym_new_expression, STATE 962), (sym_const_object_expression, STATE 962),
     (sym__primary, STATE 668), (sym_parenthesized_expression, STATE 962),
     (sym_constructor_invocation, STATE 643), (sym_constructor_tearoff, STATE 962),
     (sym__argument_list, STATE 3518), (sym__any_argument, STATE 2931),
     (sym_argument, STATE 3051), (sym_named_argument, STATE 3051),
     (sym_type_arguments, STATE 3200), (sym_switch_expression, STATE 962),
     (sym__parenthesized_pattern, STATE 3182), (sym_list_pattern, STATE 3182),
     (sym_map_pattern, STATE 3182), (sym_record_pattern, STATE 3182),
     (sym_object_pattern, STATE 3182), (sym__outer_pattern, STATE 3410),
     (sym_pattern_assignment, STATE 908), (sym_type_parameters, STATE 2932),
     (sym__type_name, STATE 2661), (sym__formal_parameter_part, STATE 2339),
     (sym_formal_parameter_list, STATE 2020), (sym__strict_formal_parameter_list, STATE 2016),
     (sym__new_builtin, STATE 2079), (sym_this, STATE 962), (sym_super, STATE 1337),
     (sym_label, STATE 209), (sym_comment, STATE 167), (sym_documentation_comment, STATE 167),
     (aux_sym_string_literal_repeat1, STATE 474), (sym_identifier, ACTIONS 620),
     (anon_sym_POUND, ACTIONS 73), (sym_decimal_integer_literal, ACTIONS 75),
     (sym_hex_integer_literal, ACTIONS 77), (sym_decimal_floating_point_literal, ACTIONS 75),
     (anon_sym_true, ACTIONS 79), (anon_sym_false, ACTIONS 81), (anon_sym_DQUOTE, ACTIONS 83),
     (anon_sym_SQUOTE, ACTIONS 85), (anon_sym_DQUOTE_DQUOTE_DQUOTE, ACTIONS 87),
     (anon_sym_SQUOTE_SQUOTE_SQUOTE, ACTIONS 89), (anon_sym_r_DQUOTE, ACTIONS 91),
     (anon_sym_r_SQUOTE, ACTIONS 93), (anon_sym_r_DQUOTE_DQUOTE_DQUOTE, ACTIONS 95),
     (anon_sym_r_SQUOTE_SQUOTE_SQUOTE, ACTIONS 97), (anon_sym_LBRACE, ACTIONS 442),
     (anon_sym_LBRACK, ACTIONS 103), (anon_sym_null, ACTIONS 105),
     (anon_sym_LPAREN, ACTIONS 498), (anon_sym_RPAREN, ACTIONS 634),
     (anon_sym_throw, ACTIONS 109), (anon_sym_LT, ACTIONS 111),
     (sym_increment_operator, ACTIONS 113), (sym_minus_operator, ACTIONS 117),
     (anon_sym_BANG, ACTIONS 119), (anon_sym_TILDE, ACTIONS 121), (anon_sym_await, ACTIONS 432),
     (anon_sym_switch, ACTIONS 412), (sym_rethrow_builtin, ACTIONS 151),
     (anon_sym_new, ACTIONS 155), (sym_const_builtin, ACTIONS 478), (anon_sym_this, ACTIONS 159),
     (anon_sym_super, ACTIONS 161), (anon_sym_SLASH_SLASH, ACTIONS 3),
     (anon_sym_SLASH_STAR, ACTIONS 5), (anon_sym_SLASH_SLASH_SLASH, ACTIONS 7),
     (sym__block_comment, ACTIONS 9), (sym__documentation_block_comment, ACTIONS 11)]"

lemma row_ok_167: "table_row_ok 167 ts_parse_table_167"
  by (simp add: row_simps ts_parse_table_167_def)

definition ts_parse_table_168 :: table_row where
  "ts_parse_table_168 = [
     (sym__bool_literal, STATE 989), (sym__numeric_literal, STATE 989),
     (sym__literal, STATE 962), (sym_symbol_literal, STATE 989), (sym_true, STATE 900),
     (sym_false, STATE 900), (sym_string_literal, STATE 989),
     (sym__string_literal_double_quotes, STATE 627),
     (sym__string_literal_single_quotes, STATE 627),
     (sym__string_literal_double_quotes_multiple, STATE 627),
     (sym__string_literal_single_quotes_multiple, STATE 627),
     (sym__raw_string_literal_double_quotes, STATE 627),
     (sym__raw_string_literal_single_quotes, STATE 627),
     (sym__raw_string_literal_double_quotes_multiple, STATE 627),
     (sym__raw_string_literal_single_quotes_multiple, STATE 627), (sym_list_literal, STATE 989),
     (sym_set_or_map_literal, STATE 989), (sym_null_literal, STATE 989),
     (sym_record_literal, STATE 989), (sym__record_literal_no_const, STATE 924),
     (sym__expression, STATE 3055), (sym__real_expression, STATE 660),
     (sym_throw_expression, STATE 908), (sym_rethrow_expression, STATE 908),
     (sym_assignment_expression, STATE 908), (sym_assignable_expression, STATE 1940),
     (sym_function_expression, STATE 962), (sym_if_null_expression, STATE 1477),
     (sym_conditional_expression, STATE 1477), (sym_logical_or_expression, STATE 1477),
     (sym_logical_and_expression, STATE 1477), (sym_equality_expression, STATE 1477),
     (sym_type_cast_expression, STATE 1477), (sym_type_test_expression, STATE 1477),
     (sym_relational_expression, STATE 1477), (sym_bitwise_or_expression, STATE 1477),
     (sym_bitwise_xor_expression, STATE 1477), (sym_bitwise_and_expression, STATE 1477),
     (sym_shift_expression, STATE 1477), (sym_additive_expression, STATE 1477),
     (sym_multiplicative_expression, STATE 1477), (sym__unary_expression, STATE 1121),
     (sym_unary_expression, STATE 1303), (sym__postfix_expression, STATE 1303),
     (sym_postfix_expression, STATE 1301), (sym_prefix_operator, STATE 431),
     (sym_negation_operator, STATE 1450), (sym__exclamation_operator, STATE 1451),
     (sym_tilde_operator, STATE 1385), (sym_await_expression, STATE 1302),
     (sym_new_expression, STATE 962), (sym_const_object_expression, STATE 962),
     (sym__primary, STATE 668), (sym_parenthesized_expression, STATE 962),
     (sym_constructor_invocation, STATE 643), (sym_constructor_tearoff, STATE 962),
     (sym__argument_list, STATE 3295), (sym__any_argument, STATE 2931),
     (sym_argument, STATE 3051), (sym_named_argument, STATE 3051),
     (sym_type_arguments, STATE 3200), (sym_switch_expression, STATE 962),
     (sym__parenthesized_pattern, STATE 3182), (sym_list_pattern, STATE 3182),
     (sym_map_pattern, STATE 3182), (sym_record_pattern, STATE 3182),
     (sym_object_pattern, STATE 3182), (sym__outer_pattern, STATE 3410),
     (sym_pattern_assignment, STATE 908), (sym_type_parameters, STATE 2932),
     (sym__type_name, STATE 2661), (sym__formal_parameter_part, STATE 2339),
     (sym_formal_parameter_list, STATE 2020), (sym__strict_formal_parameter_list, STATE 2016),
     (sym__new_builtin, STATE 2079), (sym_this, STATE 962), (sym_super, STATE 1337),
     (sym_label, STATE 209), (sym_comment, STATE 168), (sym_documentation_comment, STATE 168),
     (aux_sym_string_literal_repeat1, STATE 474), (sym_identifier, ACTIONS 620),
     (anon_sym_POUND, ACTIONS 73), (sym_decimal_integer_literal, ACTIONS 75),
     (sym_hex_integer_literal, ACTIONS 77), (sym_decimal_floating_point_literal, ACTIONS 75),
     (anon_sym_true, ACTIONS 79), (anon_sym_false, ACTIONS 81), (anon_sym_DQUOTE, ACTIONS 83),
     (anon_sym_SQUOTE, ACTIONS 85), (anon_sym_DQUOTE_DQUOTE_DQUOTE, ACTIONS 87),
     (anon_sym_SQUOTE_SQUOTE_SQUOTE, ACTIONS 89), (anon_sym_r_DQUOTE, ACTIONS 91),
     (anon_sym_r_SQUOTE, ACTIONS 93), (anon_sym_r_DQUOTE_DQUOTE_DQUOTE, ACTIONS 95),
     (anon_sym_r_SQUOTE_SQUOTE_SQUOTE, ACTIONS 97), (anon_sym_LBRACE, ACTIONS 442),
     (anon_sym_LBRACK, ACTIONS 103), (anon_sym_null, ACTIONS 105),
     (anon_sym_LPAREN, ACTIONS 498), (anon_sym_RPAREN, ACTIONS 636),
     (anon_sym_throw, ACTIONS 109), (anon_sym_LT, ACTIONS 111),
     (sym_increment_operator, ACTIONS 113), (sym_minus_operator, ACTIONS 117),
     (anon_sym_BANG, ACTIONS 119), (anon_sym_TILDE, ACTIONS 121), (anon_sym_await, ACTIONS 432),
     (anon_sym_switch, ACTIONS 412), (sym_rethrow_builtin, ACTIONS 151),
     (anon_sym_new, ACTIONS 155), (sym_const_builtin, ACTIONS 478), (anon_sym_this, ACTIONS 159),
     (anon_sym_super, ACTIONS 161), (anon_sym_SLASH_SLASH, ACTIONS 3),
     (anon_sym_SLASH_STAR, ACTIONS 5), (anon_sym_SLASH_SLASH_SLASH, ACTIONS 7),
     (sym__block_comment, ACTIONS 9), (sym__documentation_block_comment, ACTIONS 11)]"

lemma row_ok_168: "table_row_ok 168 ts_parse_table_168"
  by (simp add: row_simps ts_parse_table_168_def)

definition ts_parse_table_169 :: table_row where
  "ts_parse_table_169 = [
     (sym__bool_literal, STATE 989), (sym__numeric_literal, STATE 989),
     (sym__literal, STATE 962), (sym_symbol_literal, STATE 989), (sym_true, STATE 900),
     (sym_false, STATE 900), (sym_string_literal, STATE 989),
     (sym__string_literal_double_quotes, STATE 627),
     (sym__string_literal_single_quotes, STATE 627),
     (sym__string_literal_double_quotes_multiple, STATE 627),
     (sym__string_literal_single_quotes_multiple, STATE 627),
     (sym__raw_string_literal_double_quotes, STATE 627),
     (sym__raw_string_literal_single_quotes, STATE 627),
     (sym__raw_string_literal_double_quotes_multiple, STATE 627),
     (sym__raw_string_literal_single_quotes_multiple, STATE 627), (sym_list_literal, STATE 989),
     (sym_set_or_map_literal, STATE 989), (sym_null_literal, STATE 989),
     (sym_record_literal, STATE 989), (sym__record_literal_no_const, STATE 924),
     (sym__expression, STATE 3055), (sym__real_expression, STATE 660),
     (sym_throw_expression, STATE 908), (sym_rethrow_expression, STATE 908),
     (sym_assignment_expression, STATE 908), (sym_assignable_expression, STATE 1940),
     (sym_function_expression, STATE 962), (sym_if_null_expression, STATE 1477),
     (sym_conditional_expression, STATE 1477), (sym_logical_or_expression, STATE 1477),
     (sym_logical_and_expression, STATE 1477), (sym_equality_expression, STATE 1477),
     (sym_type_cast_expression, STATE 1477), (sym_type_test_expression, STATE 1477),
     (sym_relational_expression, STATE 1477), (sym_bitwise_or_expression, STATE 1477),
     (sym_bitwise_xor_expression, STATE 1477), (sym_bitwise_and_expression, STATE 1477),
     (sym_shift_expression, STATE 1477), (sym_additive_expression, STATE 1477),
     (sym_multiplicative_expression, STATE 1477), (sym__unary_expression, STATE 1121),
     (sym_unary_expression, STATE 1303), (sym__postfix_expression, STATE 1303),
     (sym_postfix_expression, STATE 1301), (sym_prefix_operator, STATE 431),
     (sym_negation_operator, STATE 1450), (sym__exclamation_operator, STATE 1451),
     (sym_tilde_operator, STATE 1385), (sym_await_expression, STATE 1302),
     (sym_new_expression, STATE 962), (sym_const_object_expression, STATE 962),
     (sym__primary, STATE 668), (sym_parenthesized_expression, STATE 962),
     (sym_constructor_invocation, STATE 643), (sym_constructor_tearoff, STATE 962),
     (sym__argument_list, STATE 3385), (sym__any_argument, STATE 2931),
     (sym_argument, STATE 3051), (sym_named_argument, STATE 3051),
     (sym_type_arguments, STATE 3200), (sym_switch_expression, STATE 962),
     (sym__parenthesized_pattern, STATE 3182), (sym_list_pattern, STATE 3182),
     (sym_map_pattern, STATE 3182), (sym_record_pattern, STATE 3182),
     (sym_object_pattern, STATE 3182), (sym__outer_pattern, STATE 3410),
     (sym_pattern_assignment, STATE 908), (sym_type_parameters, STATE 2932),
     (sym__type_name, STATE 2661), (sym__formal_parameter_part, STATE 2339),
     (sym_formal_parameter_list, STATE 2020), (sym__strict_formal_parameter_list, STATE 2016),
     (sym__new_builtin, STATE 2079), (sym_this, STATE 962), (sym_super, STATE 1337),
     (sym_label, STATE 209), (sym_comment, STATE 169), (sym_documentation_comment, STATE 169),
     (aux_sym_string_literal_repeat1, STATE 474), (sym_identifier, ACTIONS 620),
     (anon_sym_POUND, ACTIONS 73), (sym_decimal_integer_literal, ACTIONS 75),
     (sym_hex_integer_literal, ACTIONS 77), (sym_decimal_floating_point_literal, ACTIONS 75),
     (anon_sym_true, ACTIONS 79), (anon_sym_false, ACTIONS 81), (anon_sym_DQUOTE, ACTIONS 83),
     (anon_sym_SQUOTE, ACTIONS 85), (anon_sym_DQUOTE_DQUOTE_DQUOTE, ACTIONS 87),
     (anon_sym_SQUOTE_SQUOTE_SQUOTE, ACTIONS 89), (anon_sym_r_DQUOTE, ACTIONS 91),
     (anon_sym_r_SQUOTE, ACTIONS 93), (anon_sym_r_DQUOTE_DQUOTE_DQUOTE, ACTIONS 95),
     (anon_sym_r_SQUOTE_SQUOTE_SQUOTE, ACTIONS 97), (anon_sym_LBRACE, ACTIONS 442),
     (anon_sym_LBRACK, ACTIONS 103), (anon_sym_null, ACTIONS 105),
     (anon_sym_LPAREN, ACTIONS 498), (anon_sym_RPAREN, ACTIONS 638),
     (anon_sym_throw, ACTIONS 109), (anon_sym_LT, ACTIONS 111),
     (sym_increment_operator, ACTIONS 113), (sym_minus_operator, ACTIONS 117),
     (anon_sym_BANG, ACTIONS 119), (anon_sym_TILDE, ACTIONS 121), (anon_sym_await, ACTIONS 432),
     (anon_sym_switch, ACTIONS 412), (sym_rethrow_builtin, ACTIONS 151),
     (anon_sym_new, ACTIONS 155), (sym_const_builtin, ACTIONS 478), (anon_sym_this, ACTIONS 159),
     (anon_sym_super, ACTIONS 161), (anon_sym_SLASH_SLASH, ACTIONS 3),
     (anon_sym_SLASH_STAR, ACTIONS 5), (anon_sym_SLASH_SLASH_SLASH, ACTIONS 7),
     (sym__block_comment, ACTIONS 9), (sym__documentation_block_comment, ACTIONS 11)]"

lemma row_ok_169: "table_row_ok 169 ts_parse_table_169"
  by (simp add: row_simps ts_parse_table_169_def)

definition ts_parse_table_170 :: table_row where
  "ts_parse_table_170 = [
     (sym__bool_literal, STATE 989), (sym__numeric_literal, STATE 989),
     (sym__literal, STATE 962), (sym_symbol_literal, STATE 989), (sym_true, STATE 900),
     (sym_false, STATE 900), (sym_string_literal, STATE 989),
     (sym__string_literal_double_quotes, STATE 627),
     (sym__string_literal_single_quotes, STATE 627),
     (sym__string_literal_double_quotes_multiple, STATE 627),
     (sym__string_literal_single_quotes_multiple, STATE 627),
     (sym__raw_string_literal_double_quotes, STATE 627),
     (sym__raw_string_literal_single_quotes, STATE 627),
     (sym__raw_string_literal_double_quotes_multiple, STATE 627),
     (sym__raw_string_literal_single_quotes_multiple, STATE 627), (sym_list_literal, STATE 989),
     (sym_set_or_map_literal, STATE 989), (sym_null_literal, STATE 989),
     (sym_record_literal, STATE 989), (sym__record_literal_no_const, STATE 924),
     (sym__expression, STATE 3055), (sym__real_expression, STATE 660),
     (sym_throw_expression, STATE 908), (sym_rethrow_expression, STATE 908),
     (sym_assignment_expression, STATE 908), (sym_assignable_expression, STATE 1940),
     (sym_function_expression, STATE 962), (sym_if_null_expression, STATE 1477),
     (sym_conditional_expression, STATE 1477), (sym_logical_or_expression, STATE 1477),
     (sym_logical_and_expression, STATE 1477), (sym_equality_expression, STATE 1477),
     (sym_type_cast_expression, STATE 1477), (sym_type_test_expression, STATE 1477),
     (sym_relational_expression, STATE 1477), (sym_bitwise_or_expression, STATE 1477),
     (sym_bitwise_xor_expression, STATE 1477), (sym_bitwise_and_expression, STATE 1477),
     (sym_shift_expression, STATE 1477), (sym_additive_expression, STATE 1477),
     (sym_multiplicative_expression, STATE 1477), (sym__unary_expression, STATE 1121),
     (sym_unary_expression, STATE 1303), (sym__postfix_expression, STATE 1303),
     (sym_postfix_expression, STATE 1301), (sym_prefix_operator, STATE 431),
     (sym_negation_operator, STATE 1450), (sym__exclamation_operator, STATE 1451),
     (sym_tilde_operator, STATE 1385), (sym_await_expression, STATE 1302),
     (sym_new_expression, STATE 962), (sym_const_object_expression, STATE 962),
     (sym__primary, STATE 668), (sym_parenthesized_expression, STATE 962),
     (sym_constructor_invocation, STATE 643), (sym_constructor_tearoff, STATE 962),
     (sym__any_argument, STATE 3030), (sym_argument, STATE 3051),
     (sym_named_argument, STATE 3051), (sym_type_arguments, STATE 3200),
     (sym_switch_expression, STATE 962), (sym__parenthesized_pattern, STATE 3182),
     (sym_list_pattern, STATE 3182), (sym_map_pattern, STATE 3182),
     (sym_record_pattern, STATE 3182), (sym_object_pattern, STATE 3182),
     (sym__outer_pattern, STATE 3410), (sym_pattern_assignment, STATE 908),
     (sym_type_parameters, STATE 2932), (sym__type_name, STATE 2661),
     (sym__formal_parameter_part, STATE 2339), (sym_formal_parameter_list, STATE 2020),
     (sym__strict_formal_parameter_list, STATE 2016), (sym__new_builtin, STATE 2079),
     (sym_this, STATE 962), (sym_super, STATE 1337), (sym_label, STATE 209),
     (sym_comment, STATE 170), (sym_documentation_comment, STATE 170),
     (aux_sym_string_literal_repeat1, STATE 474), (sym_identifier, ACTIONS 620),
     (anon_sym_POUND, ACTIONS 73), (sym_decimal_integer_literal, ACTIONS 75),
     (sym_hex_integer_literal, ACTIONS 77), (sym_decimal_floating_point_literal, ACTIONS 75),
     (anon_sym_true, ACTIONS 79), (anon_sym_false, ACTIONS 81), (anon_sym_DQUOTE, ACTIONS 83),
     (anon_sym_SQUOTE, ACTIONS 85), (anon_sym_DQUOTE_DQUOTE_DQUOTE, ACTIONS 87),
     (anon_sym_SQUOTE_SQUOTE_SQUOTE, ACTIONS 89), (anon_sym_r_DQUOTE, ACTIONS 91),
     (anon_sym_r_SQUOTE, ACTIONS 93), (anon_sym_r_DQUOTE_DQUOTE_DQUOTE, ACTIONS 95),
     (anon_sym_r_SQUOTE_SQUOTE_SQUOTE, ACTIONS 97), (anon_sym_LBRACE, ACTIONS 442),
     (anon_sym_LBRACK, ACTIONS 103), (anon_sym_null, ACTIONS 105),
     (anon_sym_LPAREN, ACTIONS 498), (anon_sym_RPAREN, ACTIONS 640),
     (anon_sym_throw, ACTIONS 109), (anon_sym_LT, ACTIONS 111),
     (sym_increment_operator, ACTIONS 113), (sym_minus_operator, ACTIONS 117),
     (anon_sym_BANG, ACTIONS 119), (anon_sym_TILDE, ACTIONS 121), (anon_sym_await, ACTIONS 432),
     (anon_sym_switch, ACTIONS 412), (sym_rethrow_builtin, ACTIONS 151),
     (anon_sym_new, ACTIONS 155), (sym_const_builtin, ACTIONS 478), (anon_sym_this, ACTIONS 159),
     (anon_sym_super, ACTIONS 161), (anon_sym_SLASH_SLASH, ACTIONS 3),
     (anon_sym_SLASH_STAR, ACTIONS 5), (anon_sym_SLASH_SLASH_SLASH, ACTIONS 7),
     (sym__block_comment, ACTIONS 9), (sym__documentation_block_comment, ACTIONS 11)]"

lemma row_ok_170: "table_row_ok 170 ts_parse_table_170"
  by (simp add: row_simps ts_parse_table_170_def)

definition ts_parse_table_171 :: table_row where
  "ts_parse_table_171 = [
     (sym__bool_literal, STATE 989), (sym__numeric_literal, STATE 989),
     (sym__literal, STATE 962), (sym_symbol_literal, STATE 989), (sym_true, STATE 900),
     (sym_false, STATE 900), (sym_string_literal, STATE 989),
     (sym__string_literal_double_quotes, STATE 627),
     (sym__string_literal_single_quotes, STATE 627),
     (sym__string_literal_double_quotes_multiple, STATE 627),
     (sym__string_literal_single_quotes_multiple, STATE 627),
     (sym__raw_string_literal_double_quotes, STATE 627),
     (sym__raw_string_literal_single_quotes, STATE 627),
     (sym__raw_string_literal_double_quotes_multiple, STATE 627),
     (sym__raw_string_literal_single_quotes_multiple, STATE 627), (sym_list_literal, STATE 989),
     (sym_set_or_map_literal, STATE 989), (sym_null_literal, STATE 989),
     (sym_record_literal, STATE 989), (sym__record_literal_no_const, STATE 924),
     (sym__expression, STATE 3055), (sym__real_expression, STATE 660),
     (sym_throw_expression, STATE 908), (sym_rethrow_expression, STATE 908),
     (sym_assignment_expression, STATE 908), (sym_assignable_expression, STATE 1940),
     (sym_function_expression, STATE 962), (sym_if_null_expression, STATE 1477),
     (sym_conditional_expression, STATE 1477), (sym_logical_or_expression, STATE 1477),
     (sym_logical_and_expression, STATE 1477), (sym_equality_expression, STATE 1477),
     (sym_type_cast_expression, STATE 1477), (sym_type_test_expression, STATE 1477),
     (sym_relational_expression, STATE 1477), (sym_bitwise_or_expression, STATE 1477),
     (sym_bitwise_xor_expression, STATE 1477), (sym_bitwise_and_expression, STATE 1477),
     (sym_shift_expression, STATE 1477), (sym_additive_expression, STATE 1477),
     (sym_multiplicative_expression, STATE 1477), (sym__unary_expression, STATE 1121),
     (sym_unary_expression, STATE 1303), (sym__postfix_expression, STATE 1303),
     (sym_postfix_expression, STATE 1301), (sym_prefix_operator, STATE 431),
     (sym_negation_operator, STATE 1450), (sym__exclamation_operator, STATE 1451),
     (sym_tilde_operator, STATE 1385), (sym_await_expression, STATE 1302),
     (sym_new_expression, STATE 962), (sym_const_object_expression, STATE 962),
     (sym__primary, STATE 668), (sym_parenthesized_expression, STATE 962),
     (sym_constructor_invocation, STATE 643), (sym_constructor_tearoff, STATE 962),
     (sym__any_argument, STATE 3030), (sym_argument, STATE 3051),
     (sym_named_argument, STATE 3051), (sym_type_arguments, STATE 3200),
     (sym_switch_expression, STATE 962), (sym__parenthesized_pattern, STATE 3182),
     (sym_list_pattern, STATE 3182), (sym_map_pattern, STATE 3182),
     (sym_record_pattern, STATE 3182), (sym_object_pattern, STATE 3182),
     (sym__outer_pattern, STATE 3410), (sym_pattern_assignment, STATE 908),
     (sym_type_parameters, STATE 2932), (sym__type_name, STATE 2661),
     (sym__formal_parameter_part, STATE 2339), (sym_formal_parameter_list, STATE 2020),
     (sym__strict_formal_parameter_list, STATE 2016), (sym__new_builtin, STATE 2079),
     (sym_this, STATE 962), (sym_super, STATE 1337), (sym_label, STATE 209),
     (sym_comment, STATE 171), (sym_documentation_comment, STATE 171),
     (aux_sym_string_literal_repeat1, STATE 474), (sym_identifier, ACTIONS 620),
     (anon_sym_POUND, ACTIONS 73), (sym_decimal_integer_literal, ACTIONS 75),
     (sym_hex_integer_literal, ACTIONS 77), (sym_decimal_floating_point_literal, ACTIONS 75),
     (anon_sym_true, ACTIONS 79), (anon_sym_false, ACTIONS 81), (anon_sym_DQUOTE, ACTIONS 83),
     (anon_sym_SQUOTE, ACTIONS 85), (anon_sym_DQUOTE_DQUOTE_DQUOTE, ACTIONS 87),
     (anon_sym_SQUOTE_SQUOTE_SQUOTE, ACTIONS 89), (anon_sym_r_DQUOTE, ACTIONS 91),
     (anon_sym_r_SQUOTE, ACTIONS 93), (anon_sym_r_DQUOTE_DQUOTE_DQUOTE, ACTIONS 95),
     (anon_sym_r_SQUOTE_SQUOTE_SQUOTE, ACTIONS 97), (anon_sym_LBRACE, ACTIONS 442),
     (anon_sym_LBRACK, ACTIONS 103), (anon_sym_null, ACTIONS 105),
     (anon_sym_LPAREN, ACTIONS 498), (anon_sym_RPAREN, ACTIONS 642),
     (anon_sym_throw, ACTIONS 109), (anon_sym_LT, ACTIONS 111),
     (sym_increment_operator, ACTIONS 113), (sym_minus_operator, ACTIONS 117),
     (anon_sym_BANG, ACTIONS 119), (anon_sym_TILDE, ACTIONS 121), (anon_sym_await, ACTIONS 432),
     (anon_sym_switch, ACTIONS 412), (sym_rethrow_builtin, ACTIONS 151),
     (anon_sym_new, ACTIONS 155), (sym_const_builtin, ACTIONS 478), (anon_sym_this, ACTIONS 159),
     (anon_sym_super, ACTIONS 161), (anon_sym_SLASH_SLASH, ACTIONS 3),
     (anon_sym_SLASH_STAR, ACTIONS 5), (anon_sym_SLASH_SLASH_SLASH, ACTIONS 7),
     (sym__block_comment, ACTIONS 9), (sym__documentation_block_comment, ACTIONS 11)]"

lemma row_ok_171: "table_row_ok 171 ts_parse_table_171"
  by (simp add: row_simps ts_parse_table_171_def)

definition ts_parse_table_172 :: table_row where
  "ts_parse_table_172 = [
     (sym__bool_literal, STATE 989), (sym__numeric_literal, STATE 989),
     (sym__literal, STATE 962), (sym_symbol_literal, STATE 989), (sym_true, STATE 900),
     (sym_false, STATE 900), (sym_string_literal, STATE 989),
     (sym__string_literal_double_quotes, STATE 627),
     (sym__string_literal_single_quotes, STATE 627),
     (sym__string_literal_double_quotes_multiple, STATE 627),
     (sym__string_literal_single_quotes_multiple, STATE 627),
     (sym__raw_string_literal_double_quotes, STATE 627),
     (sym__raw_string_literal_single_quotes, STATE 627),
     (sym__raw_string_literal_double_quotes_multiple, STATE 627),
     (sym__raw_string_literal_single_quotes_multiple, STATE 627), (sym_list_literal, STATE 989),
     (sym_set_or_map_literal, STATE 989), (sym_null_literal, STATE 989),
     (sym_record_literal, STATE 989), (sym__record_literal_no_const, STATE 924),
     (sym__expression, STATE 3055), (sym__real_expression, STATE 660),
     (sym_throw_expression, STATE 908), (sym_rethrow_expression, STATE 908),
     (sym_assignment_expression, STATE 908), (sym_assignable_expression, STATE 1940),
     (sym_function_expression, STATE 962), (sym_if_null_expression, STATE 1477),
     (sym_conditional_expression, STATE 1477), (sym_logical_or_expression, STATE 1477),
     (sym_logical_and_expression, STATE 1477), (sym_equality_expression, STATE 1477),
     (sym_type_cast_expression, STATE 1477), (sym_type_test_expression, STATE 1477),
     (sym_relational_expression, STATE 1477), (sym_bitwise_or_expression, STATE 1477),
     (sym_bitwise_xor_expression, STATE 1477), (sym_bitwise_and_expression, STATE 1477),
     (sym_shift_expression, STATE 1477), (sym_additive_expression, STATE 1477),
     (sym_multiplicative_expression, STATE 1477), (sym__unary_expression, STATE 1121),
     (sym_unary_expression, STATE 1303), (sym__postfix_expression, STATE 1303),
     (sym_postfix_expression, STATE 1301), (sym_prefix_operator, STATE 431),
     (sym_negation_operator, STATE 1450), (sym__exclamation_operator, STATE 1451),
     (sym_tilde_operator, STATE 1385), (sym_await_expression, STATE 1302),
     (sym_new_expression, STATE 962), (sym_const_object_expression, STATE 962),
     (sym__primary, STATE 668), (sym_parenthesized_expression, STATE 962),
     (sym_constructor_invocation, STATE 643), (sym_constructor_tearoff, STATE 962),
     (sym__any_argument, STATE 3030), (sym_argument, STATE 3051),
     (sym_named_argument, STATE 3051), (sym_type_arguments, STATE 3200),
     (sym_switch_expression, STATE 962), (sym__parenthesized_pattern, STATE 3182),
     (sym_list_pattern, STATE 3182), (sym_map_pattern, STATE 3182),
     (sym_record_pattern, STATE 3182), (sym_object_pattern, STATE 3182),
     (sym__outer_pattern, STATE 3410), (sym_pattern_assignment, STATE 908),
     (sym_type_parameters, STATE 2932), (sym__type_name, STATE 2661),
     (sym__formal_parameter_part, STATE 2339), (sym_formal_parameter_list, STATE 2020),
     (sym__strict_formal_parameter_list, STATE 2016), (sym__new_builtin, STATE 2079),
     (sym_this, STATE 962), (sym_super, STATE 1337), (sym_label, STATE 209),
     (sym_comment, STATE 172), (sym_documentation_comment, STATE 172),
     (aux_sym_string_literal_repeat1, STATE 474), (sym_identifier, ACTIONS 620),
     (anon_sym_POUND, ACTIONS 73), (sym_decimal_integer_literal, ACTIONS 75),
     (sym_hex_integer_literal, ACTIONS 77), (sym_decimal_floating_point_literal, ACTIONS 75),
     (anon_sym_true, ACTIONS 79), (anon_sym_false, ACTIONS 81), (anon_sym_DQUOTE, ACTIONS 83),
     (anon_sym_SQUOTE, ACTIONS 85), (anon_sym_DQUOTE_DQUOTE_DQUOTE, ACTIONS 87),
     (anon_sym_SQUOTE_SQUOTE_SQUOTE, ACTIONS 89), (anon_sym_r_DQUOTE, ACTIONS 91),
     (anon_sym_r_SQUOTE, ACTIONS 93), (anon_sym_r_DQUOTE_DQUOTE_DQUOTE, ACTIONS 95),
     (anon_sym_r_SQUOTE_SQUOTE_SQUOTE, ACTIONS 97), (anon_sym_LBRACE, ACTIONS 442),
     (anon_sym_LBRACK, ACTIONS 103), (anon_sym_null, ACTIONS 105),
     (anon_sym_LPAREN, ACTIONS 498), (anon_sym_throw, ACTIONS 109), (anon_sym_LT, ACTIONS 111),
     (sym_increment_operator, ACTIONS 113), (sym_minus_operator, ACTIONS 117),
     (anon_sym_BANG, ACTIONS 119), (anon_sym_TILDE, ACTIONS 121), (anon_sym_await, ACTIONS 432),
     (anon_sym_switch, ACTIONS 412), (sym_rethrow_builtin, ACTIONS 151),
     (anon_sym_new, ACTIONS 155), (sym_const_builtin, ACTIONS 478), (anon_sym_this, ACTIONS 159),
     (anon_sym_super, ACTIONS 161), (anon_sym_SLASH_SLASH, ACTIONS 3),
     (anon_sym_SLASH_STAR, ACTIONS 5), (anon_sym_SLASH_SLASH_SLASH, ACTIONS 7),
     (sym__block_comment, ACTIONS 9), (sym__documentation_block_comment, ACTIONS 11)]"

lemma row_ok_172: "table_row_ok 172 ts_parse_table_172"
  by (simp add: row_simps ts_parse_table_172_def)

definition ts_parse_table_173 :: table_row where
  "ts_parse_table_173 = [
     (sym__bool_literal, STATE 989), (sym__numeric_literal, STATE 989),
     (sym__literal, STATE 962), (sym_symbol_literal, STATE 989), (sym_true, STATE 900),
     (sym_false, STATE 900), (sym_string_literal, STATE 989),
     (sym__string_literal_double_quotes, STATE 627),
     (sym__string_literal_single_quotes, STATE 627),
     (sym__string_literal_double_quotes_multiple, STATE 627),
     (sym__string_literal_single_quotes_multiple, STATE 627),
     (sym__raw_string_literal_double_quotes, STATE 627),
     (sym__raw_string_literal_single_quotes, STATE 627),
     (sym__raw_string_literal_double_quotes_multiple, STATE 627),
     (sym__raw_string_literal_single_quotes_multiple, STATE 627), (sym_list_literal, STATE 989),
     (sym_set_or_map_literal, STATE 989), (sym_null_literal, STATE 989),
     (sym_record_literal, STATE 989), (sym__record_literal_no_const, STATE 924),
     (sym__expression, STATE 3558), (sym__real_expression, STATE 660),
     (sym_throw_expression, STATE 908), (sym_rethrow_expression, STATE 908),
     (sym_assignment_expression, STATE 908), (sym_assignable_expression, STATE 1940),
     (sym_function_expression, STATE 962), (sym_if_null_expression, STATE 1477),
     (sym_conditional_expression, STATE 1477), (sym_logical_or_expression, STATE 1477),
     (sym_logical_and_expression, STATE 1477), (sym_equality_expression, STATE 1477),
     (sym_type_cast_expression, STATE 1477), (sym_type_test_expression, STATE 1477),
     (sym_relational_expression, STATE 1477), (sym_bitwise_or_expression, STATE 1477),
     (sym_bitwise_xor_expression, STATE 1477), (sym_bitwise_and_expression, STATE 1477),
     (sym_shift_expression, STATE 1477), (sym_additive_expression, STATE 1477),
     (sym_multiplicative_expression, STATE 1477), (sym__unary_expression, STATE 1121),
     (sym_unary_expression, STATE 1303), (sym__postfix_expression, STATE 1303),
     (sym_postfix_expression, STATE 1301), (sym_prefix_operator, STATE 431),
     (sym_negation_operator, STATE 1450), (sym__exclamation_operator, STATE 1451),
     (sym_tilde_operator, STATE 1385), (sym_await_expression, STATE 1302),
     (sym_new_expression, STATE 962), (sym_const_object_expression, STATE 962),
     (sym__primary, STATE 668), (sym_parenthesized_expression, STATE 962),
     (sym_constructor_invocation, STATE 643), (sym_constructor_tearoff, STATE 962),
     (sym_type_arguments, STATE 3200), (sym_switch_expression, STATE 962),
     (sym__parenthesized_pattern, STATE 3182), (sym_list_pattern, STATE 3182),
     (sym_map_pattern, STATE 3182), (sym__map_pattern_entry, STATE 3212),
     (sym_record_pattern, STATE 3182), (sym_object_pattern, STATE 3182),
     (sym__outer_pattern, STATE 3410), (sym_pattern_assignment, STATE 908),
     (sym_type_parameters, STATE 2932), (sym__type_name, STATE 2661),
     (sym__formal_parameter_part, STATE 2339), (sym_formal_parameter_list, STATE 2020),
     (sym__strict_formal_parameter_list, STATE 2016), (sym__new_builtin, STATE 2079),
     (sym_this, STATE 962), (sym_super, STATE 1337), (sym_comment, STATE 173),
     (sym_documentation_comment, STATE 173), (aux_sym_string_literal_repeat1, STATE 474),
     (sym_identifier, ACTIONS 494), (anon_sym_POUND, ACTIONS 73),
     (sym_decimal_integer_literal, ACTIONS 75), (sym_hex_integer_literal, ACTIONS 77),
     (sym_decimal_floating_point_literal, ACTIONS 75), (anon_sym_true, ACTIONS 79),
     (anon_sym_false, ACTIONS 81), (anon_sym_DQUOTE, ACTIONS 83), (anon_sym_SQUOTE, ACTIONS 85),
     (anon_sym_DQUOTE_DQUOTE_DQUOTE, ACTIONS 87), (anon_sym_SQUOTE_SQUOTE_SQUOTE, ACTIONS 89),
     (anon_sym_r_DQUOTE, ACTIONS 91), (anon_sym_r_SQUOTE, ACTIONS 93),
     (anon_sym_r_DQUOTE_DQUOTE_DQUOTE, ACTIONS 95),
     (anon_sym_r_SQUOTE_SQUOTE_SQUOTE, ACTIONS 97), (anon_sym_LBRACE, ACTIONS 442),
     (anon_sym_RBRACE, ACTIONS 644), (anon_sym_LBRACK, ACTIONS 103),
     (anon_sym_null, ACTIONS 105), (anon_sym_LPAREN, ACTIONS 498), (anon_sym_throw, ACTIONS 109),
     (anon_sym_LT, ACTIONS 111), (sym_increment_operator, ACTIONS 113),
     (anon_sym_DOT_DOT_DOT, ACTIONS 482), (sym_minus_operator, ACTIONS 117),
     (anon_sym_BANG, ACTIONS 119), (anon_sym_TILDE, ACTIONS 121), (anon_sym_await, ACTIONS 432),
     (anon_sym_switch, ACTIONS 412), (sym_rethrow_builtin, ACTIONS 151),
     (anon_sym_new, ACTIONS 155), (sym_const_builtin, ACTIONS 478), (anon_sym_this, ACTIONS 159),
     (anon_sym_super, ACTIONS 161), (anon_sym_SLASH_SLASH, ACTIONS 3),
     (anon_sym_SLASH_STAR, ACTIONS 5), (anon_sym_SLASH_SLASH_SLASH, ACTIONS 7),
     (sym__block_comment, ACTIONS 9), (sym__documentation_block_comment, ACTIONS 11)]"

lemma row_ok_173: "table_row_ok 173 ts_parse_table_173"
  by (simp add: row_simps ts_parse_table_173_def)

definition ts_parse_table_174 :: table_row where
  "ts_parse_table_174 = [
     (sym__bool_literal, STATE 989), (sym__numeric_literal, STATE 989),
     (sym__literal, STATE 962), (sym_symbol_literal, STATE 989), (sym_true, STATE 900),
     (sym_false, STATE 900), (sym_string_literal, STATE 989),
     (sym__string_literal_double_quotes, STATE 627),
     (sym__string_literal_single_quotes, STATE 627),
     (sym__string_literal_double_quotes_multiple, STATE 627),
     (sym__string_literal_single_quotes_multiple, STATE 627),
     (sym__raw_string_literal_double_quotes, STATE 627),
     (sym__raw_string_literal_single_quotes, STATE 627),
     (sym__raw_string_literal_double_quotes_multiple, STATE 627),
     (sym__raw_string_literal_single_quotes_multiple, STATE 627), (sym_list_literal, STATE 989),
     (sym_set_or_map_literal, STATE 989), (sym_null_literal, STATE 989),
     (sym_record_literal, STATE 989), (sym__record_literal_no_const, STATE 924),
     (sym__expression, STATE 3558), (sym__real_expression, STATE 660),
     (sym_throw_expression, STATE 908), (sym_rethrow_expression, STATE 908),
     (sym_assignment_expression, STATE 908), (sym_assignable_expression, STATE 1940),
     (sym_function_expression, STATE 962), (sym_if_null_expression, STATE 1477),
     (sym_conditional_expression, STATE 1477), (sym_logical_or_expression, STATE 1477),
     (sym_logical_and_expression, STATE 1477), (sym_equality_expression, STATE 1477),
     (sym_type_cast_expression, STATE 1477), (sym_type_test_expression, STATE 1477),
     (sym_relational_expression, STATE 1477), (sym_bitwise_or_expression, STATE 1477),
     (sym_bitwise_xor_expression, STATE 1477), (sym_bitwise_and_expression, STATE 1477),
     (sym_shift_expression, STATE 1477), (sym_additive_expression, STATE 1477),
     (sym_multiplicative_expression, STATE 1477), (sym__unary_expression, STATE 1121),
     (sym_unary_expression, STATE 1303), (sym__postfix_expression, STATE 1303),
     (sym_postfix_expression, STATE 1301), (sym_prefix_operator, STATE 431),
     (sym_negation_operator, STATE 1450), (sym__exclamation_operator, STATE 1451),
     (sym_tilde_operator, STATE 1385), (sym_await_expression, STATE 1302),
     (sym_new_expression, STATE 962), (sym_const_object_expression, STATE 962),
     (sym__primary, STATE 668), (sym_parenthesized_expression, STATE 962),
     (sym_constructor_invocation, STATE 643), (sym_constructor_tearoff, STATE 962),
     (sym_type_arguments, STATE 3200), (sym_switch_expression, STATE 962),
     (sym__parenthesized_pattern, STATE 3182), (sym_list_pattern, STATE 3182),
     (sym_map_pattern, STATE 3182), (sym__map_pattern_entry, STATE 2798),
     (sym_record_pattern, STATE 3182), (sym_object_pattern, STATE 3182),
     (sym__outer_pattern, STATE 3410), (sym_pattern_assignment, STATE 908),
     (sym_type_parameters, STATE 2932), (sym__type_name, STATE 2661),
     (sym__formal_parameter_part, STATE 2339), (sym_formal_parameter_list, STATE 2020),
     (sym__strict_formal_parameter_list, STATE 2016), (sym__new_builtin, STATE 2079),
     (sym_this, STATE 962), (sym_super, STATE 1337), (sym_comment, STATE 174),
     (sym_documentation_comment, STATE 174), (aux_sym_string_literal_repeat1, STATE 474),
     (sym_identifier, ACTIONS 494), (anon_sym_POUND, ACTIONS 73),
     (sym_decimal_integer_literal, ACTIONS 75), (sym_hex_integer_literal, ACTIONS 77),
     (sym_decimal_floating_point_literal, ACTIONS 75), (anon_sym_true, ACTIONS 79),
     (anon_sym_false, ACTIONS 81), (anon_sym_DQUOTE, ACTIONS 83), (anon_sym_SQUOTE, ACTIONS 85),
     (anon_sym_DQUOTE_DQUOTE_DQUOTE, ACTIONS 87), (anon_sym_SQUOTE_SQUOTE_SQUOTE, ACTIONS 89),
     (anon_sym_r_DQUOTE, ACTIONS 91), (anon_sym_r_SQUOTE, ACTIONS 93),
     (anon_sym_r_DQUOTE_DQUOTE_DQUOTE, ACTIONS 95),
     (anon_sym_r_SQUOTE_SQUOTE_SQUOTE, ACTIONS 97), (anon_sym_LBRACE, ACTIONS 442),
     (anon_sym_RBRACE, ACTIONS 480), (anon_sym_LBRACK, ACTIONS 103),
     (anon_sym_null, ACTIONS 105), (anon_sym_LPAREN, ACTIONS 498), (anon_sym_throw, ACTIONS 109),
     (anon_sym_LT, ACTIONS 111), (sym_increment_operator, ACTIONS 113),
     (anon_sym_DOT_DOT_DOT, ACTIONS 482), (sym_minus_operator, ACTIONS 117),
     (anon_sym_BANG, ACTIONS 119), (anon_sym_TILDE, ACTIONS 121), (anon_sym_await, ACTIONS 432),
     (anon_sym_switch, ACTIONS 412), (sym_rethrow_builtin, ACTIONS 151),
     (anon_sym_new, ACTIONS 155), (sym_const_builtin, ACTIONS 478), (anon_sym_this, ACTIONS 159),
     (anon_sym_super, ACTIONS 161), (anon_sym_SLASH_SLASH, ACTIONS 3),
     (anon_sym_SLASH_STAR, ACTIONS 5), (anon_sym_SLASH_SLASH_SLASH, ACTIONS 7),
     (sym__block_comment, ACTIONS 9), (sym__documentation_block_comment, ACTIONS 11)]"

lemma row_ok_174: "table_row_ok 174 ts_parse_table_174"
  by (simp add: row_simps ts_parse_table_174_def)

definition ts_parse_table_175 :: table_row where
  "ts_parse_table_175 = [
     (sym__bool_literal, STATE 989), (sym__numeric_literal, STATE 989),
     (sym__literal, STATE 962), (sym_symbol_literal, STATE 989), (sym_true, STATE 900),
     (sym_false, STATE 900), (sym_string_literal, STATE 989),
     (sym__string_literal_double_quotes, STATE 627),
     (sym__string_literal_single_quotes, STATE 627),
     (sym__string_literal_double_quotes_multiple, STATE 627),
     (sym__string_literal_single_quotes_multiple, STATE 627),
     (sym__raw_string_literal_double_quotes, STATE 627),
     (sym__raw_string_literal_single_quotes, STATE 627),
     (sym__raw_string_literal_double_quotes_multiple, STATE 627),
     (sym__raw_string_literal_single_quotes_multiple, STATE 627), (sym_list_literal, STATE 989),
     (sym_set_or_map_literal, STATE 989), (sym_null_literal, STATE 989),
     (sym_record_literal, STATE 989), (sym__record_literal_no_const, STATE 924),
     (sym__expression, STATE 3558), (sym__real_expression, STATE 660),
     (sym_throw_expression, STATE 908), (sym_rethrow_expression, STATE 908),
     (sym_assignment_expression, STATE 908), (sym_assignable_expression, STATE 1940),
     (sym_function_expression, STATE 962), (sym_if_null_expression, STATE 1477),
     (sym_conditional_expression, STATE 1477), (sym_logical_or_expression, STATE 1477),
     (sym_logical_and_expression, STATE 1477), (sym_equality_expression, STATE 1477),
     (sym_type_cast_expression, STATE 1477), (sym_type_test_expression, STATE 1477),
     (sym_relational_expression, STATE 1477), (sym_bitwise_or_expression, STATE 1477),
     (sym_bitwise_xor_expression, STATE 1477), (sym_bitwise_and_expression, STATE 1477),
     (sym_shift_expression, STATE 1477), (sym_additive_expression, STATE 1477),
     (sym_multiplicative_expression, STATE 1477), (sym__unary_expression, STATE 1121),
     (sym_unary_expression, STATE 1303), (sym__postfix_expression, STATE 1303),
     (sym_postfix_expression, STATE 1301), (sym_prefix_operator, STATE 431),
     (sym_negation_operator, STATE 1450), (sym__exclamation_operator, STATE 1451),
     (sym_tilde_operator, STATE 1385), (sym_await_expression, STATE 1302),
     (sym_new_expression, STATE 962), (sym_const_object_expression, STATE 962),
     (sym__primary, STATE 668), (sym_parenthesized_expression, STATE 962),
     (sym_constructor_invocation, STATE 643), (sym_constructor_tearoff, STATE 962),
     (sym_type_arguments, STATE 3200), (sym_switch_expression, STATE 962),
     (sym__parenthesized_pattern, STATE 3182), (sym_list_pattern, STATE 3182),
     (sym_map_pattern, STATE 3182), (sym__map_pattern_entry, STATE 3212),
     (sym_record_pattern, STATE 3182), (sym_object_pattern, STATE 3182),
     (sym__outer_pattern, STATE 3410), (sym_pattern_assignment, STATE 908),
     (sym_type_parameters, STATE 2932), (sym__type_name, STATE 2661),
     (sym__formal_parameter_part, STATE 2339), (sym_formal_parameter_list, STATE 2020),
     (sym__strict_formal_parameter_list, STATE 2016), (sym__new_builtin, STATE 2079),
     (sym_this, STATE 962), (sym_super, STATE 1337), (sym_comment, STATE 175),
     (sym_documentation_comment, STATE 175), (aux_sym_string_literal_repeat1, STATE 474),
     (sym_identifier, ACTIONS 494), (anon_sym_POUND, ACTIONS 73),
     (sym_decimal_integer_literal, ACTIONS 75), (sym_hex_integer_literal, ACTIONS 77),
     (sym_decimal_floating_point_literal, ACTIONS 75), (anon_sym_true, ACTIONS 79),
     (anon_sym_false, ACTIONS 81), (anon_sym_DQUOTE, ACTIONS 83), (anon_sym_SQUOTE, ACTIONS 85),
     (anon_sym_DQUOTE_DQUOTE_DQUOTE, ACTIONS 87), (anon_sym_SQUOTE_SQUOTE_SQUOTE, ACTIONS 89),
     (anon_sym_r_DQUOTE, ACTIONS 91), (anon_sym_r_SQUOTE, ACTIONS 93),
     (anon_sym_r_DQUOTE_DQUOTE_DQUOTE, ACTIONS 95),
     (anon_sym_r_SQUOTE_SQUOTE_SQUOTE, ACTIONS 97), (anon_sym_LBRACE, ACTIONS 442),
     (anon_sym_RBRACE, ACTIONS 646), (anon_sym_LBRACK, ACTIONS 103),
     (anon_sym_null, ACTIONS 105), (anon_sym_LPAREN, ACTIONS 498), (anon_sym_throw, ACTIONS 109),
     (anon_sym_LT, ACTIONS 111), (sym_increment_operator, ACTIONS 113),
     (anon_sym_DOT_DOT_DOT, ACTIONS 482), (sym_minus_operator, ACTIONS 117),
     (anon_sym_BANG, ACTIONS 119), (anon_sym_TILDE, ACTIONS 121), (anon_sym_await, ACTIONS 432),
     (anon_sym_switch, ACTIONS 412), (sym_rethrow_builtin, ACTIONS 151),
     (anon_sym_new, ACTIONS 155), (sym_const_builtin, ACTIONS 478), (anon_sym_this, ACTIONS 159),
     (anon_sym_super, ACTIONS 161), (anon_sym_SLASH_SLASH, ACTIONS 3),
     (anon_sym_SLASH_STAR, ACTIONS 5), (anon_sym_SLASH_SLASH_SLASH, ACTIONS 7),
     (sym__block_comment, ACTIONS 9), (sym__documentation_block_comment, ACTIONS 11)]"

lemma row_ok_175: "table_row_ok 175 ts_parse_table_175"
  by (simp add: row_simps ts_parse_table_175_def)

definition ts_parse_table_176 :: table_row where
  "ts_parse_table_176 = [
     (sym__bool_literal, STATE 989), (sym__numeric_literal, STATE 989),
     (sym__literal, STATE 962), (sym_symbol_literal, STATE 989), (sym_true, STATE 900),
     (sym_false, STATE 900), (sym_string_literal, STATE 989),
     (sym__string_literal_double_quotes, STATE 627),
     (sym__string_literal_single_quotes, STATE 627),
     (sym__string_literal_double_quotes_multiple, STATE 627),
     (sym__string_literal_single_quotes_multiple, STATE 627),
     (sym__raw_string_literal_double_quotes, STATE 627),
     (sym__raw_string_literal_single_quotes, STATE 627),
     (sym__raw_string_literal_double_quotes_multiple, STATE 627),
     (sym__raw_string_literal_single_quotes_multiple, STATE 627), (sym_list_literal, STATE 989),
     (sym_set_or_map_literal, STATE 989), (sym_null_literal, STATE 989),
     (sym_record_literal, STATE 989), (sym__record_literal_no_const, STATE 924),
     (sym__expression, STATE 2601), (sym__real_expression, STATE 660),
     (sym_throw_expression, STATE 908), (sym_rethrow_expression, STATE 908),
     (sym_assignment_expression, STATE 908), (sym_assignable_expression, STATE 1940),
     (sym_function_expression, STATE 962), (sym_if_null_expression, STATE 1477),
     (sym_conditional_expression, STATE 1477), (sym_logical_or_expression, STATE 1477),
     (sym_logical_and_expression, STATE 1477), (sym_equality_expression, STATE 1477),
     (sym_type_cast_expression, STATE 1477), (sym_type_test_expression, STATE 1477),
     (sym_relational_expression, STATE 1477), (sym_bitwise_or_expression, STATE 1477),
     (sym_bitwise_xor_expression, STATE 1477), (sym_bitwise_and_expression, STATE 1477),
     (sym_shift_expression, STATE 1477), (sym_additive_expression, STATE 1477),
     (sym_multiplicative_expression, STATE 1477), (sym__unary_expression, STATE 1121),
     (sym_unary_expression, STATE 1303), (sym__postfix_expression, STATE 1303),
     (sym_postfix_expression, STATE 1301), (sym_prefix_operator, STATE 431),
     (sym_negation_operator, STATE 1450), (sym__exclamation_operator, STATE 1451),
     (sym_tilde_operator, STATE 1385), (sym_await_expression, STATE 1302),
     (sym_new_expression, STATE 962), (sym_const_object_expression, STATE 962),
     (sym__primary, STATE 668), (sym_parenthesized_expression, STATE 962),
     (sym_constructor_invocation, STATE 643), (sym_constructor_tearoff, STATE 962),
     (sym_type_arguments, STATE 3200), (sym_switch_expression, STATE 962),
     (sym__parenthesized_pattern, STATE 3182), (sym_list_pattern, STATE 3182),
     (sym_map_pattern, STATE 3182), (sym_record_pattern, STATE 3182),
     (sym_object_pattern, STATE 3182), (sym__outer_pattern, STATE 3410),
     (sym_pattern_assignment, STATE 908), (sym_type_parameters, STATE 2932),
     (sym__type_name, STATE 2661), (sym__formal_parameter_part, STATE 2339),
     (sym_formal_parameter_list, STATE 2020), (sym__strict_formal_parameter_list, STATE 2016),
     (sym__new_builtin, STATE 2079), (sym_this, STATE 962), (sym_super, STATE 1337),
     (sym_comment, STATE 176), (sym_documentation_comment, STATE 176),
     (aux_sym_string_literal_repeat1, STATE 474), (sym_identifier, ACTIONS 494),
     (anon_sym_POUND, ACTIONS 73), (sym_decimal_integer_literal, ACTIONS 75),
     (sym_hex_integer_literal, ACTIONS 77), (sym_decimal_floating_point_literal, ACTIONS 75),
     (anon_sym_true, ACTIONS 79), (anon_sym_false, ACTIONS 81), (anon_sym_DQUOTE, ACTIONS 83),
     (anon_sym_SQUOTE, ACTIONS 85), (anon_sym_DQUOTE_DQUOTE_DQUOTE, ACTIONS 87),
     (anon_sym_SQUOTE_SQUOTE_SQUOTE, ACTIONS 89), (anon_sym_r_DQUOTE, ACTIONS 91),
     (anon_sym_r_SQUOTE, ACTIONS 93), (anon_sym_r_DQUOTE_DQUOTE_DQUOTE, ACTIONS 95),
     (anon_sym_r_SQUOTE_SQUOTE_SQUOTE, ACTIONS 97), (anon_sym_LBRACE, ACTIONS 442),
     (anon_sym_RBRACE, ACTIONS 648), (anon_sym_LBRACK, ACTIONS 103),
     (anon_sym_COMMA, ACTIONS 648), (anon_sym_null, ACTIONS 105), (anon_sym_LPAREN, ACTIONS 498),
     (anon_sym_throw, ACTIONS 109), (anon_sym_QMARK, ACTIONS 470), (anon_sym_LT, ACTIONS 111),
     (sym_increment_operator, ACTIONS 113), (sym_minus_operator, ACTIONS 117),
     (anon_sym_BANG, ACTIONS 119), (anon_sym_TILDE, ACTIONS 121), (anon_sym_await, ACTIONS 432),
     (anon_sym_switch, ACTIONS 412), (sym_rethrow_builtin, ACTIONS 151),
     (anon_sym_new, ACTIONS 155), (sym_const_builtin, ACTIONS 478), (anon_sym_this, ACTIONS 159),
     (anon_sym_super, ACTIONS 161), (anon_sym_SLASH_SLASH, ACTIONS 3),
     (anon_sym_SLASH_STAR, ACTIONS 5), (anon_sym_SLASH_SLASH_SLASH, ACTIONS 7),
     (sym__block_comment, ACTIONS 9), (sym__documentation_block_comment, ACTIONS 11)]"

lemma row_ok_176: "table_row_ok 176 ts_parse_table_176"
  by (simp add: row_simps ts_parse_table_176_def)

definition ts_parse_table_177 :: table_row where
  "ts_parse_table_177 = [
     (sym__bool_literal, STATE 989), (sym__numeric_literal, STATE 989),
     (sym__literal, STATE 962), (sym_symbol_literal, STATE 989), (sym_true, STATE 900),
     (sym_false, STATE 900), (sym_string_literal, STATE 989),
     (sym__string_literal_double_quotes, STATE 627),
     (sym__string_literal_single_quotes, STATE 627),
     (sym__string_literal_double_quotes_multiple, STATE 627),
     (sym__string_literal_single_quotes_multiple, STATE 627),
     (sym__raw_string_literal_double_quotes, STATE 627),
     (sym__raw_string_literal_single_quotes, STATE 627),
     (sym__raw_string_literal_double_quotes_multiple, STATE 627),
     (sym__raw_string_literal_single_quotes_multiple, STATE 627), (sym_list_literal, STATE 989),
     (sym_set_or_map_literal, STATE 989), (sym_null_literal, STATE 989),
     (sym_record_literal, STATE 989), (sym__record_literal_no_const, STATE 924),
     (sym_record_field, STATE 3234), (sym__expression, STATE 3220),
     (sym__real_expression, STATE 660), (sym_throw_expression, STATE 908),
     (sym_rethrow_expression, STATE 908), (sym_assignment_expression, STATE 908),
     (sym_assignable_expression, STATE 1940), (sym_function_expression, STATE 962),
     (sym_if_null_expression, STATE 1477), (sym_conditional_expression, STATE 1477),
     (sym_logical_or_expression, STATE 1477), (sym_logical_and_expression, STATE 1477),
     (sym_equality_expression, STATE 1477), (sym_type_cast_expression, STATE 1477),
     (sym_type_test_expression, STATE 1477), (sym_relational_expression, STATE 1477),
     (sym_bitwise_or_expression, STATE 1477), (sym_bitwise_xor_expression, STATE 1477),
     (sym_bitwise_and_expression, STATE 1477), (sym_shift_expression, STATE 1477),
     (sym_additive_expression, STATE 1477), (sym_multiplicative_expression, STATE 1477),
     (sym__unary_expression, STATE 1121), (sym_unary_expression, STATE 1303),
     (sym__postfix_expression, STATE 1303), (sym_postfix_expression, STATE 1301),
     (sym_prefix_operator, STATE 431), (sym_negation_operator, STATE 1450),
     (sym__exclamation_operator, STATE 1451), (sym_tilde_operator, STATE 1385),
     (sym_await_expression, STATE 1302), (sym_new_expression, STATE 962),
     (sym_const_object_expression, STATE 962), (sym__primary, STATE 668),
     (sym_parenthesized_expression, STATE 962), (sym_constructor_invocation, STATE 643),
     (sym_constructor_tearoff, STATE 962), (sym_type_arguments, STATE 3200),
     (sym_switch_expression, STATE 962), (sym__parenthesized_pattern, STATE 3182),
     (sym_list_pattern, STATE 3182), (sym_map_pattern, STATE 3182),
     (sym_record_pattern, STATE 3182), (sym_object_pattern, STATE 3182),
     (sym__outer_pattern, STATE 3410), (sym_pattern_assignment, STATE 908),
     (sym_type_parameters, STATE 2932), (sym__type_name, STATE 2661),
     (sym__formal_parameter_part, STATE 2339), (sym_formal_parameter_list, STATE 2020),
     (sym__strict_formal_parameter_list, STATE 2016), (sym__new_builtin, STATE 2079),
     (sym_this, STATE 962), (sym_super, STATE 1337), (sym_label, STATE 235),
     (sym_comment, STATE 177), (sym_documentation_comment, STATE 177),
     (aux_sym_string_literal_repeat1, STATE 474), (sym_identifier, ACTIONS 620),
     (anon_sym_POUND, ACTIONS 73), (sym_decimal_integer_literal, ACTIONS 75),
     (sym_hex_integer_literal, ACTIONS 77), (sym_decimal_floating_point_literal, ACTIONS 75),
     (anon_sym_true, ACTIONS 79), (anon_sym_false, ACTIONS 81), (anon_sym_DQUOTE, ACTIONS 83),
     (anon_sym_SQUOTE, ACTIONS 85), (anon_sym_DQUOTE_DQUOTE_DQUOTE, ACTIONS 87),
     (anon_sym_SQUOTE_SQUOTE_SQUOTE, ACTIONS 89), (anon_sym_r_DQUOTE, ACTIONS 91),
     (anon_sym_r_SQUOTE, ACTIONS 93), (anon_sym_r_DQUOTE_DQUOTE_DQUOTE, ACTIONS 95),
     (anon_sym_r_SQUOTE_SQUOTE_SQUOTE, ACTIONS 97), (anon_sym_LBRACE, ACTIONS 442),
     (anon_sym_LBRACK, ACTIONS 103), (anon_sym_null, ACTIONS 105),
     (anon_sym_LPAREN, ACTIONS 498), (anon_sym_RPAREN, ACTIONS 650),
     (anon_sym_throw, ACTIONS 109), (anon_sym_LT, ACTIONS 111),
     (sym_increment_operator, ACTIONS 113), (sym_minus_operator, ACTIONS 117),
     (anon_sym_BANG, ACTIONS 119), (anon_sym_TILDE, ACTIONS 121), (anon_sym_await, ACTIONS 432),
     (anon_sym_switch, ACTIONS 412), (sym_rethrow_builtin, ACTIONS 151),
     (anon_sym_new, ACTIONS 155), (sym_const_builtin, ACTIONS 478), (anon_sym_this, ACTIONS 159),
     (anon_sym_super, ACTIONS 161), (anon_sym_SLASH_SLASH, ACTIONS 3),
     (anon_sym_SLASH_STAR, ACTIONS 5), (anon_sym_SLASH_SLASH_SLASH, ACTIONS 7),
     (sym__block_comment, ACTIONS 9), (sym__documentation_block_comment, ACTIONS 11)]"

lemma row_ok_177: "table_row_ok 177 ts_parse_table_177"
  by (simp add: row_simps ts_parse_table_177_def)

definition ts_parse_table_178 :: table_row where
  "ts_parse_table_178 = [
     (sym__bool_literal, STATE 989), (sym__numeric_literal, STATE 989),
     (sym__literal, STATE 962), (sym_symbol_literal, STATE 989), (sym_true, STATE 900),
     (sym_false, STATE 900), (sym_string_literal, STATE 989),
     (sym__string_literal_double_quotes, STATE 627),
     (sym__string_literal_single_quotes, STATE 627),
     (sym__string_literal_double_quotes_multiple, STATE 627),
     (sym__string_literal_single_quotes_multiple, STATE 627),
     (sym__raw_string_literal_double_quotes, STATE 627),
     (sym__raw_string_literal_single_quotes, STATE 627),
     (sym__raw_string_literal_double_quotes_multiple, STATE 627),
     (sym__raw_string_literal_single_quotes_multiple, STATE 627), (sym_list_literal, STATE 989),
     (sym_set_or_map_literal, STATE 989), (sym_null_literal, STATE 989),
     (sym_record_literal, STATE 989), (sym__record_literal_no_const, STATE 924),
     (sym_record_field, STATE 3234), (sym__expression, STATE 3220),
     (sym__real_expression, STATE 660), (sym_throw_expression, STATE 908),
     (sym_rethrow_expression, STATE 908), (sym_assignment_expression, STATE 908),
     (sym_assignable_expression, STATE 1940), (sym_function_expression, STATE 962),
     (sym_if_null_expression, STATE 1477), (sym_conditional_expression, STATE 1477),
     (sym_logical_or_expression, STATE 1477), (sym_logical_and_expression, STATE 1477),
     (sym_equality_expression, STATE 1477), (sym_type_cast_expression, STATE 1477),
     (sym_type_test_expression, STATE 1477), (sym_relational_expression, STATE 1477),
     (sym_bitwise_or_expression, STATE 1477), (sym_bitwise_xor_expression, STATE 1477),
     (sym_bitwise_and_expression, STATE 1477), (sym_shift_expression, STATE 1477),
     (sym_additive_expression, STATE 1477), (sym_multiplicative_expression, STATE 1477),
     (sym__unary_expression, STATE 1121), (sym_unary_expression, STATE 1303),
     (sym__postfix_expression, STATE 1303), (sym_postfix_expression, STATE 1301),
     (sym_prefix_operator, STATE 431), (sym_negation_operator, STATE 1450),
     (sym__exclamation_operator, STATE 1451), (sym_tilde_operator, STATE 1385),
     (sym_await_expression, STATE 1302), (sym_new_expression, STATE 962),
     (sym_const_object_expression, STATE 962), (sym__primary, STATE 668),
     (sym_parenthesized_expression, STATE 962), (sym_constructor_invocation, STATE 643),
     (sym_constructor_tearoff, STATE 962), (sym_type_arguments, STATE 3200),
     (sym_switch_expression, STATE 962), (sym__parenthesized_pattern, STATE 3182),
     (sym_list_pattern, STATE 3182), (sym_map_pattern, STATE 3182),
     (sym_record_pattern, STATE 3182), (sym_object_pattern, STATE 3182),
     (sym__outer_pattern, STATE 3410), (sym_pattern_assignment, STATE 908),
     (sym_type_parameters, STATE 2932), (sym__type_name, STATE 2661),
     (sym__formal_parameter_part, STATE 2339), (sym_formal_parameter_list, STATE 2020),
     (sym__strict_formal_parameter_list, STATE 2016), (sym__new_builtin, STATE 2079),
     (sym_this, STATE 962), (sym_super, STATE 1337), (sym_label, STATE 235),
     (sym_comment, STATE 178), (sym_documentation_comment, STATE 178),
     (aux_sym_string_literal_repeat1, STATE 474), (sym_identifier, ACTIONS 620),
     (anon_sym_POUND, ACTIONS 73), (sym_decimal_integer_literal, ACTIONS 75),
     (sym_hex_integer_literal, ACTIONS 77), (sym_decimal_floating_point_literal, ACTIONS 75),
     (anon_sym_true, ACTIONS 79), (anon_sym_false, ACTIONS 81), (anon_sym_DQUOTE, ACTIONS 83),
     (anon_sym_SQUOTE, ACTIONS 85), (anon_sym_DQUOTE_DQUOTE_DQUOTE, ACTIONS 87),
     (anon_sym_SQUOTE_SQUOTE_SQUOTE, ACTIONS 89), (anon_sym_r_DQUOTE, ACTIONS 91),
     (anon_sym_r_SQUOTE, ACTIONS 93), (anon_sym_r_DQUOTE_DQUOTE_DQUOTE, ACTIONS 95),
     (anon_sym_r_SQUOTE_SQUOTE_SQUOTE, ACTIONS 97), (anon_sym_LBRACE, ACTIONS 442),
     (anon_sym_LBRACK, ACTIONS 103), (anon_sym_null, ACTIONS 105),
     (anon_sym_LPAREN, ACTIONS 498), (anon_sym_RPAREN, ACTIONS 652),
     (anon_sym_throw, ACTIONS 109), (anon_sym_LT, ACTIONS 111),
     (sym_increment_operator, ACTIONS 113), (sym_minus_operator, ACTIONS 117),
     (anon_sym_BANG, ACTIONS 119), (anon_sym_TILDE, ACTIONS 121), (anon_sym_await, ACTIONS 432),
     (anon_sym_switch, ACTIONS 412), (sym_rethrow_builtin, ACTIONS 151),
     (anon_sym_new, ACTIONS 155), (sym_const_builtin, ACTIONS 478), (anon_sym_this, ACTIONS 159),
     (anon_sym_super, ACTIONS 161), (anon_sym_SLASH_SLASH, ACTIONS 3),
     (anon_sym_SLASH_STAR, ACTIONS 5), (anon_sym_SLASH_SLASH_SLASH, ACTIONS 7),
     (sym__block_comment, ACTIONS 9), (sym__documentation_block_comment, ACTIONS 11)]"

lemma row_ok_178: "table_row_ok 178 ts_parse_table_178"
  by (simp add: row_simps ts_parse_table_178_def)

definition ts_parse_table_179 :: table_row where
  "ts_parse_table_179 = [
     (sym__bool_literal, STATE 989), (sym__numeric_literal, STATE 989),
     (sym__literal, STATE 962), (sym_symbol_literal, STATE 989), (sym_true, STATE 900),
     (sym_false, STATE 900), (sym_string_literal, STATE 989),
     (sym__string_literal_double_quotes, STATE 627),
     (sym__string_literal_single_quotes, STATE 627),
     (sym__string_literal_double_quotes_multiple, STATE 627),
     (sym__string_literal_single_quotes_multiple, STATE 627),
     (sym__raw_string_literal_double_quotes, STATE 627),
     (sym__raw_string_literal_single_quotes, STATE 627),
     (sym__raw_string_literal_double_quotes_multiple, STATE 627),
     (sym__raw_string_literal_single_quotes_multiple, STATE 627), (sym_list_literal, STATE 989),
     (sym_set_or_map_literal, STATE 989), (sym_null_literal, STATE 989),
     (sym_record_literal, STATE 989), (sym__record_literal_no_const, STATE 924),
     (sym__expression, STATE 3558), (sym__real_expression, STATE 660),
     (sym_throw_expression, STATE 908), (sym_rethrow_expression, STATE 908),
     (sym_assignment_expression, STATE 908), (sym_assignable_expression, STATE 1940),
     (sym_function_expression, STATE 962), (sym_if_null_expression, STATE 1477),
     (sym_conditional_expression, STATE 1477), (sym_logical_or_expression, STATE 1477),
     (sym_logical_and_expression, STATE 1477), (sym_equality_expression, STATE 1477),
     (sym_type_cast_expression, STATE 1477), (sym_type_test_expression, STATE 1477),
     (sym_relational_expression, STATE 1477), (sym_bitwise_or_expression, STATE 1477),
     (sym_bitwise_xor_expression, STATE 1477), (sym_bitwise_and_expression, STATE 1477),
     (sym_shift_expression, STATE 1477), (sym_additive_expression, STATE 1477),
     (sym_multiplicative_expression, STATE 1477), (sym__unary_expression, STATE 1121),
     (sym_unary_expression, STATE 1303), (sym__postfix_expression, STATE 1303),
     (sym_postfix_expression, STATE 1301), (sym_prefix_operator, STATE 431),
     (sym_negation_operator, STATE 1450), (sym__exclamation_operator, STATE 1451),
     (sym_tilde_operator, STATE 1385), (sym_await_expression, STATE 1302),
     (sym_new_expression, STATE 962), (sym_const_object_expression, STATE 962),
     (sym__primary, STATE 668), (sym_parenthesized_expression, STATE 962),
     (sym_constructor_invocation, STATE 643), (sym_constructor_tearoff, STATE 962),
     (sym_type_arguments, STATE 3200), (sym_switch_expression, STATE 962),
     (sym__parenthesized_pattern, STATE 3182), (sym_list_pattern, STATE 3182),
     (sym_map_pattern, STATE 3182), (sym__map_pattern_entry, STATE 2986),
     (sym_record_pattern, STATE 3182), (sym_object_pattern, STATE 3182),
     (sym__outer_pattern, STATE 3410), (sym_pattern_assignment, STATE 908),
     (sym_type_parameters, STATE 2932), (sym__type_name, STATE 2661),
     (sym__formal_parameter_part, STATE 2339), (sym_formal_parameter_list, STATE 2020),
     (sym__strict_formal_parameter_list, STATE 2016), (sym__new_builtin, STATE 2079),
     (sym_this, STATE 962), (sym_super, STATE 1337), (sym_comment, STATE 179),
     (sym_documentation_comment, STATE 179), (aux_sym_string_literal_repeat1, STATE 474),
     (sym_identifier, ACTIONS 494), (anon_sym_POUND, ACTIONS 73),
     (sym_decimal_integer_literal, ACTIONS 75), (sym_hex_integer_literal, ACTIONS 77),
     (sym_decimal_floating_point_literal, ACTIONS 75), (anon_sym_true, ACTIONS 79),
     (anon_sym_false, ACTIONS 81), (anon_sym_DQUOTE, ACTIONS 83), (anon_sym_SQUOTE, ACTIONS 85),
     (anon_sym_DQUOTE_DQUOTE_DQUOTE, ACTIONS 87), (anon_sym_SQUOTE_SQUOTE_SQUOTE, ACTIONS 89),
     (anon_sym_r_DQUOTE, ACTIONS 91), (anon_sym_r_SQUOTE, ACTIONS 93),
     (anon_sym_r_DQUOTE_DQUOTE_DQUOTE, ACTIONS 95),
     (anon_sym_r_SQUOTE_SQUOTE_SQUOTE, ACTIONS 97), (anon_sym_LBRACE, ACTIONS 442),
     (anon_sym_RBRACE, ACTIONS 654), (anon_sym_LBRACK, ACTIONS 103),
     (anon_sym_null, ACTIONS 105), (anon_sym_LPAREN, ACTIONS 498), (anon_sym_throw, ACTIONS 109),
     (anon_sym_LT, ACTIONS 111), (sym_increment_operator, ACTIONS 113),
     (anon_sym_DOT_DOT_DOT, ACTIONS 482), (sym_minus_operator, ACTIONS 117),
     (anon_sym_BANG, ACTIONS 119), (anon_sym_TILDE, ACTIONS 121), (anon_sym_await, ACTIONS 432),
     (anon_sym_switch, ACTIONS 412), (sym_rethrow_builtin, ACTIONS 151),
     (anon_sym_new, ACTIONS 155), (sym_const_builtin, ACTIONS 478), (anon_sym_this, ACTIONS 159),
     (anon_sym_super, ACTIONS 161), (anon_sym_SLASH_SLASH, ACTIONS 3),
     (anon_sym_SLASH_STAR, ACTIONS 5), (anon_sym_SLASH_SLASH_SLASH, ACTIONS 7),
     (sym__block_comment, ACTIONS 9), (sym__documentation_block_comment, ACTIONS 11)]"

lemma row_ok_179: "table_row_ok 179 ts_parse_table_179"
  by (simp add: row_simps ts_parse_table_179_def)

definition ts_parse_table_180 :: table_row where
  "ts_parse_table_180 = [
     (sym__bool_literal, STATE 989), (sym__numeric_literal, STATE 989),
     (sym__literal, STATE 962), (sym_symbol_literal, STATE 989), (sym_true, STATE 900),
     (sym_false, STATE 900), (sym_string_literal, STATE 989),
     (sym__string_literal_double_quotes, STATE 627),
     (sym__string_literal_single_quotes, STATE 627),
     (sym__string_literal_double_quotes_multiple, STATE 627),
     (sym__string_literal_single_quotes_multiple, STATE 627),
     (sym__raw_string_literal_double_quotes, STATE 627),
     (sym__raw_string_literal_single_quotes, STATE 627),
     (sym__raw_string_literal_double_quotes_multiple, STATE 627),
     (sym__raw_string_literal_single_quotes_multiple, STATE 627), (sym_list_literal, STATE 989),
     (sym_set_or_map_literal, STATE 989), (sym_null_literal, STATE 989),
     (sym_record_literal, STATE 989), (sym__record_literal_no_const, STATE 924),
     (sym_record_field, STATE 3234), (sym__expression, STATE 3220),
     (sym__real_expression, STATE 660), (sym_throw_expression, STATE 908),
     (sym_rethrow_expression, STATE 908), (sym_assignment_expression, STATE 908),
     (sym_assignable_expression, STATE 1940), (sym_function_expression, STATE 962),
     (sym_if_null_expression, STATE 1477), (sym_conditional_expression, STATE 1477),
     (sym_logical_or_expression, STATE 1477), (sym_logical_and_expression, STATE 1477),
     (sym_equality_expression, STATE 1477), (sym_type_cast_expression, STATE 1477),
     (sym_type_test_expression, STATE 1477), (sym_relational_expression, STATE 1477),
     (sym_bitwise_or_expression, STATE 1477), (sym_bitwise_xor_expression, STATE 1477),
     (sym_bitwise_and_expression, STATE 1477), (sym_shift_expression, STATE 1477),
     (sym_additive_expression, STATE 1477), (sym_multiplicative_expression, STATE 1477),
     (sym__unary_expression, STATE 1121), (sym_unary_expression, STATE 1303),
     (sym__postfix_expression, STATE 1303), (sym_postfix_expression, STATE 1301),
     (sym_prefix_operator, STATE 431), (sym_negation_operator, STATE 1450),
     (sym__exclamation_operator, STATE 1451), (sym_tilde_operator, STATE 1385),
     (sym_await_expression, STATE 1302), (sym_new_expression, STATE 962),
     (sym_const_object_expression, STATE 962), (sym__primary, STATE 668),
     (sym_parenthesized_expression, STATE 962), (sym_constructor_invocation, STATE 643),
     (sym_constructor_tearoff, STATE 962), (sym_type_arguments, STATE 3200),
     (sym_switch_expression, STATE 962), (sym__parenthesized_pattern, STATE 3182),
     (sym_list_pattern, STATE 3182), (sym_map_pattern, STATE 3182),
     (sym_record_pattern, STATE 3182), (sym_object_pattern, STATE 3182),
     (sym__outer_pattern, STATE 3410), (sym_pattern_assignment, STATE 908),
     (sym_type_parameters, STATE 2932), (sym__type_name, STATE 2661),
     (sym__formal_parameter_part, STATE 2339), (sym_formal_parameter_list, STATE 2020),
     (sym__strict_formal_parameter_list, STATE 2016), (sym__new_builtin, STATE 2079),
     (sym_this, STATE 962), (sym_super, STATE 1337), (sym_label, STATE 235),
     (sym_comment, STATE 180), (sym_documentation_comment, STATE 180),
     (aux_sym_string_literal_repeat1, STATE 474), (sym_identifier, ACTIONS 620),
     (anon_sym_POUND, ACTIONS 73), (sym_decimal_integer_literal, ACTIONS 75),
     (sym_hex_integer_literal, ACTIONS 77), (sym_decimal_floating_point_literal, ACTIONS 75),
     (anon_sym_true, ACTIONS 79), (anon_sym_false, ACTIONS 81), (anon_sym_DQUOTE, ACTIONS 83),
     (anon_sym_SQUOTE, ACTIONS 85), (anon_sym_DQUOTE_DQUOTE_DQUOTE, ACTIONS 87),
     (anon_sym_SQUOTE_SQUOTE_SQUOTE, ACTIONS 89), (anon_sym_r_DQUOTE, ACTIONS 91),
     (anon_sym_r_SQUOTE, ACTIONS 93), (anon_sym_r_DQUOTE_DQUOTE_DQUOTE, ACTIONS 95),
     (anon_sym_r_SQUOTE_SQUOTE_SQUOTE, ACTIONS 97), (anon_sym_LBRACE, ACTIONS 442),
     (anon_sym_LBRACK, ACTIONS 103), (anon_sym_null, ACTIONS 105),
     (anon_sym_LPAREN, ACTIONS 498), (anon_sym_RPAREN, ACTIONS 656),
     (anon_sym_throw, ACTIONS 109), (anon_sym_LT, ACTIONS 111),
     (sym_increment_operator, ACTIONS 113), (sym_minus_operator, ACTIONS 117),
     (anon_sym_BANG, ACTIONS 119), (anon_sym_TILDE, ACTIONS 121), (anon_sym_await, ACTIONS 432),
     (anon_sym_switch, ACTIONS 412), (sym_rethrow_builtin, ACTIONS 151),
     (anon_sym_new, ACTIONS 155), (sym_const_builtin, ACTIONS 478), (anon_sym_this, ACTIONS 159),
     (anon_sym_super, ACTIONS 161), (anon_sym_SLASH_SLASH, ACTIONS 3),
     (anon_sym_SLASH_STAR, ACTIONS 5), (anon_sym_SLASH_SLASH_SLASH, ACTIONS 7),
     (sym__block_comment, ACTIONS 9), (sym__documentation_block_comment, ACTIONS 11)]"

lemma row_ok_180: "table_row_ok 180 ts_parse_table_180"
  by (simp add: row_simps ts_parse_table_180_def)

definition ts_parse_table_181 :: table_row where
  "ts_parse_table_181 = [
     (sym__bool_literal, STATE 989), (sym__numeric_literal, STATE 989),
     (sym__literal, STATE 962), (sym_symbol_literal, STATE 989), (sym_true, STATE 900),
     (sym_false, STATE 900), (sym_string_literal, STATE 989),
     (sym__string_literal_double_quotes, STATE 627),
     (sym__string_literal_single_quotes, STATE 627),
     (sym__string_literal_double_quotes_multiple, STATE 627),
     (sym__string_literal_single_quotes_multiple, STATE 627),
     (sym__raw_string_literal_double_quotes, STATE 627),
     (sym__raw_string_literal_single_quotes, STATE 627),
     (sym__raw_string_literal_double_quotes_multiple, STATE 627),
     (sym__raw_string_literal_single_quotes_multiple, STATE 627), (sym_list_literal, STATE 989),
     (sym_set_or_map_literal, STATE 989), (sym_null_literal, STATE 989),
     (sym_record_literal, STATE 989), (sym__record_literal_no_const, STATE 924),
     (sym__expression, STATE 2549), (sym__real_expression, STATE 660),
     (sym_throw_expression, STATE 908), (sym_rethrow_expression, STATE 908),
     (sym_assignment_expression, STATE 908), (sym_assignable_expression, STATE 1940),
     (sym_function_expression, STATE 962), (sym_if_null_expression, STATE 1477),
     (sym_conditional_expression, STATE 1477), (sym_logical_or_expression, STATE 1477),
     (sym_logical_and_expression, STATE 1477), (sym_equality_expression, STATE 1477),
     (sym_type_cast_expression, STATE 1477), (sym_type_test_expression, STATE 1477),
     (sym_relational_expression, STATE 1477), (sym_bitwise_or_expression, STATE 1477),
     (sym_bitwise_xor_expression, STATE 1477), (sym_bitwise_and_expression, STATE 1477),
     (sym_shift_expression, STATE 1477), (sym_additive_expression, STATE 1477),
     (sym_multiplicative_expression, STATE 1477), (sym__unary_expression, STATE 1121),
     (sym_unary_expression, STATE 1303), (sym__postfix_expression, STATE 1303),
     (sym_postfix_expression, STATE 1301), (sym_prefix_operator, STATE 431),
     (sym_negation_operator, STATE 1450), (sym__exclamation_operator, STATE 1451),
     (sym_tilde_operator, STATE 1385), (sym_await_expression, STATE 1302),
     (sym_new_expression, STATE 962), (sym_const_object_expression, STATE 962),
     (sym__primary, STATE 668), (sym_parenthesized_expression, STATE 962),
     (sym_constructor_invocation, STATE 643), (sym_constructor_tearoff, STATE 962),
     (sym_type_arguments, STATE 3200), (sym_switch_expression, STATE 962),
     (sym__parenthesized_pattern, STATE 3182), (sym_list_pattern, STATE 3182),
     (sym_map_pattern, STATE 3182), (sym_record_pattern, STATE 3182),
     (sym_object_pattern, STATE 3182), (sym__outer_pattern, STATE 3410),
     (sym_pattern_assignment, STATE 908), (sym_type_parameters, STATE 2932),
     (sym__type_name, STATE 2661), (sym__formal_parameter_part, STATE 2339),
     (sym_formal_parameter_list, STATE 2020), (sym__strict_formal_parameter_list, STATE 2016),
     (sym__new_builtin, STATE 2079), (sym_this, STATE 962), (sym_super, STATE 1337),
     (sym__semicolon, STATE 195), (sym_comment, STATE 181),
     (sym_documentation_comment, STATE 181), (aux_sym_string_literal_repeat1, STATE 474),
     (sym_identifier, ACTIONS 494), (anon_sym_POUND, ACTIONS 73),
     (sym_decimal_integer_literal, ACTIONS 75), (sym_hex_integer_literal, ACTIONS 77),
     (sym_decimal_floating_point_literal, ACTIONS 75), (anon_sym_true, ACTIONS 79),
     (anon_sym_false, ACTIONS 81), (anon_sym_DQUOTE, ACTIONS 83), (anon_sym_SQUOTE, ACTIONS 85),
     (anon_sym_DQUOTE_DQUOTE_DQUOTE, ACTIONS 87), (anon_sym_SQUOTE_SQUOTE_SQUOTE, ACTIONS 89),
     (anon_sym_r_DQUOTE, ACTIONS 91), (anon_sym_r_SQUOTE, ACTIONS 93),
     (anon_sym_r_DQUOTE_DQUOTE_DQUOTE, ACTIONS 95),
     (anon_sym_r_SQUOTE_SQUOTE_SQUOTE, ACTIONS 97), (anon_sym_LBRACE, ACTIONS 442),
     (anon_sym_LBRACK, ACTIONS 103), (anon_sym_null, ACTIONS 105),
     (anon_sym_LPAREN, ACTIONS 498), (anon_sym_RPAREN, ACTIONS 658),
     (anon_sym_throw, ACTIONS 109), (anon_sym_LT, ACTIONS 111),
     (sym_increment_operator, ACTIONS 113), (sym_minus_operator, ACTIONS 117),
     (anon_sym_BANG, ACTIONS 119), (anon_sym_TILDE, ACTIONS 121), (anon_sym_await, ACTIONS 432),
     (anon_sym_SEMI, ACTIONS 474), (anon_sym_switch, ACTIONS 412),
     (sym_rethrow_builtin, ACTIONS 151), (anon_sym_new, ACTIONS 155),
     (sym_const_builtin, ACTIONS 478), (anon_sym_this, ACTIONS 159),
     (anon_sym_super, ACTIONS 161), (anon_sym_SLASH_SLASH, ACTIONS 3),
     (anon_sym_SLASH_STAR, ACTIONS 5), (anon_sym_SLASH_SLASH_SLASH, ACTIONS 7),
     (sym__block_comment, ACTIONS 9), (sym__documentation_block_comment, ACTIONS 11)]"

lemma row_ok_181: "table_row_ok 181 ts_parse_table_181"
  by (simp add: row_simps ts_parse_table_181_def)

definition ts_parse_table_182 :: table_row where
  "ts_parse_table_182 = [
     (sym__bool_literal, STATE 989), (sym__numeric_literal, STATE 989),
     (sym__literal, STATE 962), (sym_symbol_literal, STATE 989), (sym_true, STATE 900),
     (sym_false, STATE 900), (sym_string_literal, STATE 989),
     (sym__string_literal_double_quotes, STATE 627),
     (sym__string_literal_single_quotes, STATE 627),
     (sym__string_literal_double_quotes_multiple, STATE 627),
     (sym__string_literal_single_quotes_multiple, STATE 627),
     (sym__raw_string_literal_double_quotes, STATE 627),
     (sym__raw_string_literal_single_quotes, STATE 627),
     (sym__raw_string_literal_double_quotes_multiple, STATE 627),
     (sym__raw_string_literal_single_quotes_multiple, STATE 627), (sym_list_literal, STATE 989),
     (sym_set_or_map_literal, STATE 989), (sym_null_literal, STATE 989),
     (sym_record_literal, STATE 989), (sym__record_literal_no_const, STATE 924),
     (sym_record_field, STATE 3234), (sym__expression, STATE 3220),
     (sym__real_expression, STATE 660), (sym_throw_expression, STATE 908),
     (sym_rethrow_expression, STATE 908), (sym_assignment_expression, STATE 908),
     (sym_assignable_expression, STATE 1940), (sym_function_expression, STATE 962),
     (sym_if_null_expression, STATE 1477), (sym_conditional_expression, STATE 1477),
     (sym_logical_or_expression, STATE 1477), (sym_logical_and_expression, STATE 1477),
     (sym_equality_expression, STATE 1477), (sym_type_cast_expression, STATE 1477),
     (sym_type_test_expression, STATE 1477), (sym_relational_expression, STATE 1477),
     (sym_bitwise_or_expression, STATE 1477), (sym_bitwise_xor_expression, STATE 1477),
     (sym_bitwise_and_expression, STATE 1477), (sym_shift_expression, STATE 1477),
     (sym_additive_expression, STATE 1477), (sym_multiplicative_expression, STATE 1477),
     (sym__unary_expression, STATE 1121), (sym_unary_expression, STATE 1303),
     (sym__postfix_expression, STATE 1303), (sym_postfix_expression, STATE 1301),
     (sym_prefix_operator, STATE 431), (sym_negation_operator, STATE 1450),
     (sym__exclamation_operator, STATE 1451), (sym_tilde_operator, STATE 1385),
     (sym_await_expression, STATE 1302), (sym_new_expression, STATE 962),
     (sym_const_object_expression, STATE 962), (sym__primary, STATE 668),
     (sym_parenthesized_expression, STATE 962), (sym_constructor_invocation, STATE 643),
     (sym_constructor_tearoff, STATE 962), (sym_type_arguments, STATE 3200),
     (sym_switch_expression, STATE 962), (sym__parenthesized_pattern, STATE 3182),
     (sym_list_pattern, STATE 3182), (sym_map_pattern, STATE 3182),
     (sym_record_pattern, STATE 3182), (sym_object_pattern, STATE 3182),
     (sym__outer_pattern, STATE 3410), (sym_pattern_assignment, STATE 908),
     (sym_type_parameters, STATE 2932), (sym__type_name, STATE 2661),
     (sym__formal_parameter_part, STATE 2339), (sym_formal_parameter_list, STATE 2020),
     (sym__strict_formal_parameter_list, STATE 2016), (sym__new_builtin, STATE 2079),
     (sym_this, STATE 962), (sym_super, STATE 1337), (sym_label, STATE 235),
     (sym_comment, STATE 182), (sym_documentation_comment, STATE 182),
     (aux_sym_string_literal_repeat1, STATE 474), (sym_identifier, ACTIONS 620),
     (anon_sym_POUND, ACTIONS 73), (sym_decimal_integer_literal, ACTIONS 75),
     (sym_hex_integer_literal, ACTIONS 77), (sym_decimal_floating_point_literal, ACTIONS 75),
     (anon_sym_true, ACTIONS 79), (anon_sym_false, ACTIONS 81), (anon_sym_DQUOTE, ACTIONS 83),
     (anon_sym_SQUOTE, ACTIONS 85), (anon_sym_DQUOTE_DQUOTE_DQUOTE, ACTIONS 87),
     (anon_sym_SQUOTE_SQUOTE_SQUOTE, ACTIONS 89), (anon_sym_r_DQUOTE, ACTIONS 91),
     (anon_sym_r_SQUOTE, ACTIONS 93), (anon_sym_r_DQUOTE_DQUOTE_DQUOTE, ACTIONS 95),
     (anon_sym_r_SQUOTE_SQUOTE_SQUOTE, ACTIONS 97), (anon_sym_LBRACE, ACTIONS 442),
     (anon_sym_LBRACK, ACTIONS 103), (anon_sym_null, ACTIONS 105),
     (anon_sym_LPAREN, ACTIONS 498), (anon_sym_RPAREN, ACTIONS 660),
     (anon_sym_throw, ACTIONS 109), (anon_sym_LT, ACTIONS 111),
     (sym_increment_operator, ACTIONS 113), (sym_minus_operator, ACTIONS 117),
     (anon_sym_BANG, ACTIONS 119), (anon_sym_TILDE, ACTIONS 121), (anon_sym_await, ACTIONS 432),
     (anon_sym_switch, ACTIONS 412), (sym_rethrow_builtin, ACTIONS 151),
     (anon_sym_new, ACTIONS 155), (sym_const_builtin, ACTIONS 478), (anon_sym_this, ACTIONS 159),
     (anon_sym_super, ACTIONS 161), (anon_sym_SLASH_SLASH, ACTIONS 3),
     (anon_sym_SLASH_STAR, ACTIONS 5), (anon_sym_SLASH_SLASH_SLASH, ACTIONS 7),
     (sym__block_comment, ACTIONS 9), (sym__documentation_block_comment, ACTIONS 11)]"

lemma row_ok_182: "table_row_ok 182 ts_parse_table_182"
  by (simp add: row_simps ts_parse_table_182_def)

definition ts_parse_table_183 :: table_row where
  "ts_parse_table_183 = [
     (sym__bool_literal, STATE 989), (sym__numeric_literal, STATE 989),
     (sym__literal, STATE 962), (sym_symbol_literal, STATE 989), (sym_true, STATE 900),
     (sym_false, STATE 900), (sym_string_literal, STATE 989),
     (sym__string_literal_double_quotes, STATE 627),
     (sym__string_literal_single_quotes, STATE 627),
     (sym__string_literal_double_quotes_multiple, STATE 627),
     (sym__string_literal_single_quotes_multiple, STATE 627),
     (sym__raw_string_literal_double_quotes, STATE 627),
     (sym__raw_string_literal_single_quotes, STATE 627),
     (sym__raw_string_literal_double_quotes_multiple, STATE 627),
     (sym__raw_string_literal_single_quotes_multiple, STATE 627), (sym_list_literal, STATE 989),
     (sym_set_or_map_literal, STATE 989), (sym_null_literal, STATE 989),
     (sym_record_literal, STATE 989), (sym__record_literal_no_const, STATE 924),
     (sym__expression, STATE 3558), (sym__real_expression, STATE 660),
     (sym_throw_expression, STATE 908), (sym_rethrow_expression, STATE 908),
     (sym_assignment_expression, STATE 908), (sym_assignable_expression, STATE 1940),
     (sym_function_expression, STATE 962), (sym_if_null_expression, STATE 1477),
     (sym_conditional_expression, STATE 1477), (sym_logical_or_expression, STATE 1477),
     (sym_logical_and_expression, STATE 1477), (sym_equality_expression, STATE 1477),
     (sym_type_cast_expression, STATE 1477), (sym_type_test_expression, STATE 1477),
     (sym_relational_expression, STATE 1477), (sym_bitwise_or_expression, STATE 1477),
     (sym_bitwise_xor_expression, STATE 1477), (sym_bitwise_and_expression, STATE 1477),
     (sym_shift_expression, STATE 1477), (sym_additive_expression, STATE 1477),
     (sym_multiplicative_expression, STATE 1477), (sym__unary_expression, STATE 1121),
     (sym_unary_expression, STATE 1303), (sym__postfix_expression, STATE 1303),
     (sym_postfix_expression, STATE 1301), (sym_prefix_operator, STATE 431),
     (sym_negation_operator, STATE 1450), (sym__exclamation_operator, STATE 1451),
     (sym_tilde_operator, STATE 1385), (sym_await_expression, STATE 1302),
     (sym_new_expression, STATE 962), (sym_const_object_expression, STATE 962),
     (sym__primary, STATE 668), (sym_parenthesized_expression, STATE 962),
     (sym_constructor_invocation, STATE 643), (sym_constructor_tearoff, STATE 962),
     (sym_type_arguments, STATE 3200), (sym_switch_expression, STATE 962),
     (sym__parenthesized_pattern, STATE 3182), (sym_list_pattern, STATE 3182),
     (sym_map_pattern, STATE 3182), (sym__map_pattern_entry, STATE 3212),
     (sym_record_pattern, STATE 3182), (sym_object_pattern, STATE 3182),
     (sym__outer_pattern, STATE 3410), (sym_pattern_assignment, STATE 908),
     (sym_type_parameters, STATE 2932), (sym__type_name, STATE 2661),
     (sym__formal_parameter_part, STATE 2339), (sym_formal_parameter_list, STATE 2020),
     (sym__strict_formal_parameter_list, STATE 2016), (sym__new_builtin, STATE 2079),
     (sym_this, STATE 962), (sym_super, STATE 1337), (sym_comment, STATE 183),
     (sym_documentation_comment, STATE 183), (aux_sym_string_literal_repeat1, STATE 474),
     (sym_identifier, ACTIONS 494), (anon_sym_POUND, ACTIONS 73),
     (sym_decimal_integer_literal, ACTIONS 75), (sym_hex_integer_literal, ACTIONS 77),
     (sym_decimal_floating_point_literal, ACTIONS 75), (anon_sym_true, ACTIONS 79),
     (anon_sym_false, ACTIONS 81), (anon_sym_DQUOTE, ACTIONS 83), (anon_sym_SQUOTE, ACTIONS 85),
     (anon_sym_DQUOTE_DQUOTE_DQUOTE, ACTIONS 87), (anon_sym_SQUOTE_SQUOTE_SQUOTE, ACTIONS 89),
     (anon_sym_r_DQUOTE, ACTIONS 91), (anon_sym_r_SQUOTE, ACTIONS 93),
     (anon_sym_r_DQUOTE_DQUOTE_DQUOTE, ACTIONS 95),
     (anon_sym_r_SQUOTE_SQUOTE_SQUOTE, ACTIONS 97), (anon_sym_LBRACE, ACTIONS 442),
     (anon_sym_RBRACE, ACTIONS 662), (anon_sym_LBRACK, ACTIONS 103),
     (anon_sym_null, ACTIONS 105), (anon_sym_LPAREN, ACTIONS 498), (anon_sym_throw, ACTIONS 109),
     (anon_sym_LT, ACTIONS 111), (sym_increment_operator, ACTIONS 113),
     (anon_sym_DOT_DOT_DOT, ACTIONS 482), (sym_minus_operator, ACTIONS 117),
     (anon_sym_BANG, ACTIONS 119), (anon_sym_TILDE, ACTIONS 121), (anon_sym_await, ACTIONS 432),
     (anon_sym_switch, ACTIONS 412), (sym_rethrow_builtin, ACTIONS 151),
     (anon_sym_new, ACTIONS 155), (sym_const_builtin, ACTIONS 478), (anon_sym_this, ACTIONS 159),
     (anon_sym_super, ACTIONS 161), (anon_sym_SLASH_SLASH, ACTIONS 3),
     (anon_sym_SLASH_STAR, ACTIONS 5), (anon_sym_SLASH_SLASH_SLASH, ACTIONS 7),
     (sym__block_comment, ACTIONS 9), (sym__documentation_block_comment, ACTIONS 11)]"

lemma row_ok_183: "table_row_ok 183 ts_parse_table_183"
  by (simp add: row_simps ts_parse_table_183_def)

definition ts_parse_table_184 :: table_row where
  "ts_parse_table_184 = [
     (sym__bool_literal, STATE 989), (sym__numeric_literal, STATE 989),
     (sym__literal, STATE 962), (sym_symbol_literal, STATE 989), (sym_true, STATE 900),
     (sym_false, STATE 900), (sym_string_literal, STATE 989),
     (sym__string_literal_double_quotes, STATE 627),
     (sym__string_literal_single_quotes, STATE 627),
     (sym__string_literal_double_quotes_multiple, STATE 627),
     (sym__string_literal_single_quotes_multiple, STATE 627),
     (sym__raw_string_literal_double_quotes, STATE 627),
     (sym__raw_string_literal_single_quotes, STATE 627),
     (sym__raw_string_literal_double_quotes_multiple, STATE 627),
     (sym__raw_string_literal_single_quotes_multiple, STATE 627), (sym_list_literal, STATE 989),
     (sym_set_or_map_literal, STATE 989), (sym_null_literal, STATE 989),
     (sym_record_literal, STATE 989), (sym__record_literal_no_const, STATE 924),
     (sym__expression, STATE 2536), (sym__real_expression, STATE 660),
     (sym_throw_expression, STATE 908), (sym_rethrow_expression, STATE 908),
     (sym_assignment_expression, STATE 908), (sym_assignable_expression, STATE 1940),
     (sym_function_expression, STATE 962), (sym_if_null_expression, STATE 1477),
     (sym_conditional_expression, STATE 1477), (sym_logical_or_expression, STATE 1477),
     (sym_logical_and_expression, STATE 1477), (sym_equality_expression, STATE 1477),
     (sym_type_cast_expression, STATE 1477), (sym_type_test_expression, STATE 1477),
     (sym_relational_expression, STATE 1477), (sym_bitwise_or_expression, STATE 1477),
     (sym_bitwise_xor_expression, STATE 1477), (sym_bitwise_and_expression, STATE 1477),
     (sym_shift_expression, STATE 1477), (sym_additive_expression, STATE 1477),
     (sym_multiplicative_expression, STATE 1477), (sym__unary_expression, STATE 1121),
     (sym_unary_expression, STATE 1303), (sym__postfix_expression, STATE 1303),
     (sym_postfix_expression, STATE 1301), (sym_prefix_operator, STATE 431),
     (sym_negation_operator, STATE 1450), (sym__exclamation_operator, STATE 1451),
     (sym_tilde_operator, STATE 1385), (sym_await_expression, STATE 1302),
     (sym_new_expression, STATE 962), (sym_const_object_expression, STATE 962),
     (sym__primary, STATE 668), (sym_parenthesized_expression, STATE 962),
     (sym_constructor_invocation, STATE 643), (sym_constructor_tearoff, STATE 962),
     (sym_type_arguments, STATE 3200), (sym_switch_expression, STATE 962),
     (sym__parenthesized_pattern, STATE 3182), (sym_list_pattern, STATE 3182),
     (sym_map_pattern, STATE 3182), (sym_record_pattern, STATE 3182),
     (sym_object_pattern, STATE 3182), (sym__outer_pattern, STATE 3410),
     (sym_pattern_assignment, STATE 908), (sym_type_parameters, STATE 2932),
     (sym__type_name, STATE 2661), (sym__formal_parameter_part, STATE 2339),
     (sym_formal_parameter_list, STATE 2020), (sym__strict_formal_parameter_list, STATE 2016),
     (sym__new_builtin, STATE 2079), (sym_this, STATE 962), (sym_super, STATE 1337),
     (sym__semicolon, STATE 199), (sym_comment, STATE 184),
     (sym_documentation_comment, STATE 184), (aux_sym_string_literal_repeat1, STATE 474),
     (sym_identifier, ACTIONS 494), (anon_sym_POUND, ACTIONS 73),
     (sym_decimal_integer_literal, ACTIONS 75), (sym_hex_integer_literal, ACTIONS 77),
     (sym_decimal_floating_point_literal, ACTIONS 75), (anon_sym_true, ACTIONS 79),
     (anon_sym_false, ACTIONS 81), (anon_sym_DQUOTE, ACTIONS 83), (anon_sym_SQUOTE, ACTIONS 85),
     (anon_sym_DQUOTE_DQUOTE_DQUOTE, ACTIONS 87), (anon_sym_SQUOTE_SQUOTE_SQUOTE, ACTIONS 89),
     (anon_sym_r_DQUOTE, ACTIONS 91), (anon_sym_r_SQUOTE, ACTIONS 93),
     (anon_sym_r_DQUOTE_DQUOTE_DQUOTE, ACTIONS 95),
     (anon_sym_r_SQUOTE_SQUOTE_SQUOTE, ACTIONS 97), (anon_sym_LBRACE, ACTIONS 442),
     (anon_sym_LBRACK, ACTIONS 103), (anon_sym_null, ACTIONS 105),
     (anon_sym_LPAREN, ACTIONS 498), (anon_sym_RPAREN, ACTIONS 664),
     (anon_sym_throw, ACTIONS 109), (anon_sym_LT, ACTIONS 111),
     (sym_increment_operator, ACTIONS 113), (sym_minus_operator, ACTIONS 117),
     (anon_sym_BANG, ACTIONS 119), (anon_sym_TILDE, ACTIONS 121), (anon_sym_await, ACTIONS 432),
     (anon_sym_SEMI, ACTIONS 474), (anon_sym_switch, ACTIONS 412),
     (sym_rethrow_builtin, ACTIONS 151), (anon_sym_new, ACTIONS 155),
     (sym_const_builtin, ACTIONS 478), (anon_sym_this, ACTIONS 159),
     (anon_sym_super, ACTIONS 161), (anon_sym_SLASH_SLASH, ACTIONS 3),
     (anon_sym_SLASH_STAR, ACTIONS 5), (anon_sym_SLASH_SLASH_SLASH, ACTIONS 7),
     (sym__block_comment, ACTIONS 9), (sym__documentation_block_comment, ACTIONS 11)]"

lemma row_ok_184: "table_row_ok 184 ts_parse_table_184"
  by (simp add: row_simps ts_parse_table_184_def)

definition ts_parse_table_185 :: table_row where
  "ts_parse_table_185 = [
     (sym__bool_literal, STATE 989), (sym__numeric_literal, STATE 989),
     (sym__literal, STATE 962), (sym_symbol_literal, STATE 989), (sym_true, STATE 900),
     (sym_false, STATE 900), (sym_string_literal, STATE 989),
     (sym__string_literal_double_quotes, STATE 627),
     (sym__string_literal_single_quotes, STATE 627),
     (sym__string_literal_double_quotes_multiple, STATE 627),
     (sym__string_literal_single_quotes_multiple, STATE 627),
     (sym__raw_string_literal_double_quotes, STATE 627),
     (sym__raw_string_literal_single_quotes, STATE 627),
     (sym__raw_string_literal_double_quotes_multiple, STATE 627),
     (sym__raw_string_literal_single_quotes_multiple, STATE 627), (sym_list_literal, STATE 989),
     (sym_set_or_map_literal, STATE 989), (sym_null_literal, STATE 989),
     (sym_record_literal, STATE 989), (sym__record_literal_no_const, STATE 924),
     (sym__expression, STATE 3558), (sym__real_expression, STATE 660),
     (sym_throw_expression, STATE 908), (sym_rethrow_expression, STATE 908),
     (sym_assignment_expression, STATE 908), (sym_assignable_expression, STATE 1940),
     (sym_function_expression, STATE 962), (sym_if_null_expression, STATE 1477),
     (sym_conditional_expression, STATE 1477), (sym_logical_or_expression, STATE 1477),
     (sym_logical_and_expression, STATE 1477), (sym_equality_expression, STATE 1477),
     (sym_type_cast_expression, STATE 1477), (sym_type_test_expression, STATE 1477),
     (sym_relational_expression, STATE 1477), (sym_bitwise_or_expression, STATE 1477),
     (sym_bitwise_xor_expression, STATE 1477), (sym_bitwise_and_expression, STATE 1477),
     (sym_shift_expression, STATE 1477), (sym_additive_expression, STATE 1477),
     (sym_multiplicative_expression, STATE 1477), (sym__unary_expression, STATE 1121),
     (sym_unary_expression, STATE 1303), (sym__postfix_expression, STATE 1303),
     (sym_postfix_expression, STATE 1301), (sym_prefix_operator, STATE 431),
     (sym_negation_operator, STATE 1450), (sym__exclamation_operator, STATE 1451),
     (sym_tilde_operator, STATE 1385), (sym_await_expression, STATE 1302),
     (sym_new_expression, STATE 962), (sym_const_object_expression, STATE 962),
     (sym__primary, STATE 668), (sym_parenthesized_expression, STATE 962),
     (sym_constructor_invocation, STATE 643), (sym_constructor_tearoff, STATE 962),
     (sym_type_arguments, STATE 3200), (sym_switch_expression, STATE 962),
     (sym__parenthesized_pattern, STATE 3182), (sym_list_pattern, STATE 3182),
     (sym_map_pattern, STATE 3182), (sym__map_pattern_entry, STATE 3212),
     (sym_record_pattern, STATE 3182), (sym_object_pattern, STATE 3182),
     (sym__outer_pattern, STATE 3410), (sym_pattern_assignment, STATE 908),
     (sym_type_parameters, STATE 2932), (sym__type_name, STATE 2661),
     (sym__formal_parameter_part, STATE 2339), (sym_formal_parameter_list, STATE 2020),
     (sym__strict_formal_parameter_list, STATE 2016), (sym__new_builtin, STATE 2079),
     (sym_this, STATE 962), (sym_super, STATE 1337), (sym_comment, STATE 185),
     (sym_documentation_comment, STATE 185), (aux_sym_string_literal_repeat1, STATE 474),
     (sym_identifier, ACTIONS 494), (anon_sym_POUND, ACTIONS 73),
     (sym_decimal_integer_literal, ACTIONS 75), (sym_hex_integer_literal, ACTIONS 77),
     (sym_decimal_floating_point_literal, ACTIONS 75), (anon_sym_true, ACTIONS 79),
     (anon_sym_false, ACTIONS 81), (anon_sym_DQUOTE, ACTIONS 83), (anon_sym_SQUOTE, ACTIONS 85),
     (anon_sym_DQUOTE_DQUOTE_DQUOTE, ACTIONS 87), (anon_sym_SQUOTE_SQUOTE_SQUOTE, ACTIONS 89),
     (anon_sym_r_DQUOTE, ACTIONS 91), (anon_sym_r_SQUOTE, ACTIONS 93),
     (anon_sym_r_DQUOTE_DQUOTE_DQUOTE, ACTIONS 95),
     (anon_sym_r_SQUOTE_SQUOTE_SQUOTE, ACTIONS 97), (anon_sym_LBRACE, ACTIONS 442),
     (anon_sym_LBRACK, ACTIONS 103), (anon_sym_null, ACTIONS 105),
     (anon_sym_LPAREN, ACTIONS 498), (anon_sym_throw, ACTIONS 109), (anon_sym_LT, ACTIONS 111),
     (sym_increment_operator, ACTIONS 113), (anon_sym_DOT_DOT_DOT, ACTIONS 482),
     (sym_minus_operator, ACTIONS 117), (anon_sym_BANG, ACTIONS 119),
     (anon_sym_TILDE, ACTIONS 121), (anon_sym_await, ACTIONS 432),
     (anon_sym_switch, ACTIONS 412), (sym_rethrow_builtin, ACTIONS 151),
     (anon_sym_new, ACTIONS 155), (sym_const_builtin, ACTIONS 478), (anon_sym_this, ACTIONS 159),
     (anon_sym_super, ACTIONS 161), (anon_sym_SLASH_SLASH, ACTIONS 3),
     (anon_sym_SLASH_STAR, ACTIONS 5), (anon_sym_SLASH_SLASH_SLASH, ACTIONS 7),
     (sym__block_comment, ACTIONS 9), (sym__documentation_block_comment, ACTIONS 11)]"

lemma row_ok_185: "table_row_ok 185 ts_parse_table_185"
  by (simp add: row_simps ts_parse_table_185_def)

definition ts_parse_table_186 :: table_row where
  "ts_parse_table_186 = [
     (sym__bool_literal, STATE 989), (sym__numeric_literal, STATE 989),
     (sym__literal, STATE 962), (sym_symbol_literal, STATE 989), (sym_true, STATE 900),
     (sym_false, STATE 900), (sym_string_literal, STATE 989),
     (sym__string_literal_double_quotes, STATE 627),
     (sym__string_literal_single_quotes, STATE 627),
     (sym__string_literal_double_quotes_multiple, STATE 627),
     (sym__string_literal_single_quotes_multiple, STATE 627),
     (sym__raw_string_literal_double_quotes, STATE 627),
     (sym__raw_string_literal_single_quotes, STATE 627),
     (sym__raw_string_literal_double_quotes_multiple, STATE 627),
     (sym__raw_string_literal_single_quotes_multiple, STATE 627), (sym_list_literal, STATE 989),
     (sym_set_or_map_literal, STATE 989), (sym_null_literal, STATE 989),
     (sym_record_literal, STATE 989), (sym__record_literal_no_const, STATE 924),
     (sym_record_field, STATE 3234), (sym__expression, STATE 3220),
     (sym__real_expression, STATE 660), (sym_throw_expression, STATE 908),
     (sym_rethrow_expression, STATE 908), (sym_assignment_expression, STATE 908),
     (sym_assignable_expression, STATE 1940), (sym_function_expression, STATE 962),
     (sym_if_null_expression, STATE 1477), (sym_conditional_expression, STATE 1477),
     (sym_logical_or_expression, STATE 1477), (sym_logical_and_expression, STATE 1477),
     (sym_equality_expression, STATE 1477), (sym_type_cast_expression, STATE 1477),
     (sym_type_test_expression, STATE 1477), (sym_relational_expression, STATE 1477),
     (sym_bitwise_or_expression, STATE 1477), (sym_bitwise_xor_expression, STATE 1477),
     (sym_bitwise_and_expression, STATE 1477), (sym_shift_expression, STATE 1477),
     (sym_additive_expression, STATE 1477), (sym_multiplicative_expression, STATE 1477),
     (sym__unary_expression, STATE 1121), (sym_unary_expression, STATE 1303),
     (sym__postfix_expression, STATE 1303), (sym_postfix_expression, STATE 1301),
     (sym_prefix_operator, STATE 431), (sym_negation_operator, STATE 1450),
     (sym__exclamation_operator, STATE 1451), (sym_tilde_operator, STATE 1385),
     (sym_await_expression, STATE 1302), (sym_new_expression, STATE 962),
     (sym_const_object_expression, STATE 962), (sym__primary, STATE 668),
     (sym_parenthesized_expression, STATE 962), (sym_constructor_invocation, STATE 643),
     (sym_constructor_tearoff, STATE 962), (sym_type_arguments, STATE 3200),
     (sym_switch_expression, STATE 962), (sym__parenthesized_pattern, STATE 3182),
     (sym_list_pattern, STATE 3182), (sym_map_pattern, STATE 3182),
     (sym_record_pattern, STATE 3182), (sym_object_pattern, STATE 3182),
     (sym__outer_pattern, STATE 3410), (sym_pattern_assignment, STATE 908),
     (sym_type_parameters, STATE 2932), (sym__type_name, STATE 2661),
     (sym__formal_parameter_part, STATE 2339), (sym_formal_parameter_list, STATE 2020),
     (sym__strict_formal_parameter_list, STATE 2016), (sym__new_builtin, STATE 2079),
     (sym_this, STATE 962), (sym_super, STATE 1337), (sym_label, STATE 235),
     (sym_comment, STATE 186), (sym_documentation_comment, STATE 186),
     (aux_sym_string_literal_repeat1, STATE 474), (sym_identifier, ACTIONS 620),
     (anon_sym_POUND, ACTIONS 73), (sym_decimal_integer_literal, ACTIONS 75),
     (sym_hex_integer_literal, ACTIONS 77), (sym_decimal_floating_point_literal, ACTIONS 75),
     (anon_sym_true, ACTIONS 79), (anon_sym_false, ACTIONS 81), (anon_sym_DQUOTE, ACTIONS 83),
     (anon_sym_SQUOTE, ACTIONS 85), (anon_sym_DQUOTE_DQUOTE_DQUOTE, ACTIONS 87),
     (anon_sym_SQUOTE_SQUOTE_SQUOTE, ACTIONS 89), (anon_sym_r_DQUOTE, ACTIONS 91),
     (anon_sym_r_SQUOTE, ACTIONS 93), (anon_sym_r_DQUOTE_DQUOTE_DQUOTE, ACTIONS 95),
     (anon_sym_r_SQUOTE_SQUOTE_SQUOTE, ACTIONS 97), (anon_sym_LBRACE, ACTIONS 442),
     (anon_sym_LBRACK, ACTIONS 103), (anon_sym_null, ACTIONS 105),
     (anon_sym_LPAREN, ACTIONS 498), (anon_sym_throw, ACTIONS 109), (anon_sym_LT, ACTIONS 111),
     (sym_increment_operator, ACTIONS 113), (sym_minus_operator, ACTIONS 117),
     (anon_sym_BANG, ACTIONS 119), (anon_sym_TILDE, ACTIONS 121), (anon_sym_await, ACTIONS 432),
     (anon_sym_switch, ACTIONS 412), (sym_rethrow_builtin, ACTIONS 151),
     (anon_sym_new, ACTIONS 155), (sym_const_builtin, ACTIONS 478), (anon_sym_this, ACTIONS 159),
     (anon_sym_super, ACTIONS 161), (anon_sym_SLASH_SLASH, ACTIONS 3),
     (anon_sym_SLASH_STAR, ACTIONS 5), (anon_sym_SLASH_SLASH_SLASH, ACTIONS 7),
     (sym__block_comment, ACTIONS 9), (sym__documentation_block_comment, ACTIONS 11)]"

lemma row_ok_186: "table_row_ok 186 ts_parse_table_186"
  by (simp add: row_simps ts_parse_table_186_def)

definition ts_parse_table_187 :: table_row where
  "ts_parse_table_187 = [
     (sym__bool_literal, STATE 989), (sym__numeric_literal, STATE 989),
     (sym__literal, STATE 962), (sym_symbol_literal, STATE 989), (sym_true, STATE 900),
     (sym_false, STATE 900), (sym_string_literal, STATE 989),
     (sym__string_literal_double_quotes, STATE 627),
     (sym__string_literal_single_quotes, STATE 627),
     (sym__string_literal_double_quotes_multiple, STATE 627),
     (sym__string_literal_single_quotes_multiple, STATE 627),
     (sym__raw_string_literal_double_quotes, STATE 627),
     (sym__raw_string_literal_single_quotes, STATE 627),
     (sym__raw_string_literal_double_quotes_multiple, STATE 627),
     (sym__raw_string_literal_single_quotes_multiple, STATE 627), (sym_list_literal, STATE 989),
     (sym_set_or_map_literal, STATE 989), (sym_null_literal, STATE 989),
     (sym_record_literal, STATE 989), (sym__record_literal_no_const, STATE 924),
     (sym__expression, STATE 3134), (sym__real_expression, STATE 660),
     (sym_throw_expression, STATE 908), (sym_rethrow_expression, STATE 908),
     (sym_assignment_expression, STATE 908), (sym_assignable_expression, STATE 1940),
     (sym_function_expression, STATE 962), (sym_if_null_expression, STATE 1477),
     (sym_conditional_expression, STATE 1477), (sym_logical_or_expression, STATE 1477),
     (sym_logical_and_expression, STATE 1477), (sym_equality_expression, STATE 1477),
     (sym_type_cast_expression, STATE 1477), (sym_type_test_expression, STATE 1477),
     (sym_relational_expression, STATE 1477), (sym_bitwise_or_expression, STATE 1477),
     (sym_bitwise_xor_expression, STATE 1477), (sym_bitwise_and_expression, STATE 1477),
     (sym_shift_expression, STATE 1477), (sym_additive_expression, STATE 1477),
     (sym_multiplicative_expression, STATE 1477), (sym__unary_expression, STATE 1121),
     (sym_unary_expression, STATE 1303), (sym__postfix_expression, STATE 1303),
     (sym_postfix_expression, STATE 1301), (sym_prefix_operator, STATE 431),
     (sym_negation_operator, STATE 1450), (sym__exclamation_operator, STATE 1451),
     (sym_tilde_operator, STATE 1385), (sym_await_expression, STATE 1302),
     (sym_new_expression, STATE 962), (sym_const_object_expression, STATE 962),
     (sym__primary, STATE 668), (sym_parenthesized_expression, STATE 962),
     (sym_constructor_invocation, STATE 643), (sym_constructor_tearoff, STATE 962),
     (sym_type_arguments, STATE 3200), (sym_switch_expression, STATE 962),
     (sym__parenthesized_pattern, STATE 3182), (sym_list_pattern, STATE 3182),
     (sym_map_pattern, STATE 3182), (sym_record_pattern, STATE 3182),
     (sym_object_pattern, STATE 3182), (sym__outer_pattern, STATE 3410),
     (sym_pattern_assignment, STATE 908), (sym_type_parameters, STATE 2932),
     (sym__type_name, STATE 2661), (sym__formal_parameter_part, STATE 2339),
     (sym_formal_parameter_list, STATE 2020), (sym__strict_formal_parameter_list, STATE 2016),
     (sym__new_builtin, STATE 2079), (sym_this, STATE 962), (sym_super, STATE 1337),
     (sym__semicolon, STATE 194), (sym_comment, STATE 187),
     (sym_documentation_comment, STATE 187), (aux_sym_string_literal_repeat1, STATE 474),
     (sym_identifier, ACTIONS 494), (anon_sym_POUND, ACTIONS 73),
     (sym_decimal_integer_literal, ACTIONS 75), (sym_hex_integer_literal, ACTIONS 77),
     (sym_decimal_floating_point_literal, ACTIONS 75), (anon_sym_true, ACTIONS 79),
     (anon_sym_false, ACTIONS 81), (anon_sym_DQUOTE, ACTIONS 83), (anon_sym_SQUOTE, ACTIONS 85),
     (anon_sym_DQUOTE_DQUOTE_DQUOTE, ACTIONS 87), (anon_sym_SQUOTE_SQUOTE_SQUOTE, ACTIONS 89),
     (anon_sym_r_DQUOTE, ACTIONS 91), (anon_sym_r_SQUOTE, ACTIONS 93),
     (anon_sym_r_DQUOTE_DQUOTE_DQUOTE, ACTIONS 95),
     (anon_sym_r_SQUOTE_SQUOTE_SQUOTE, ACTIONS 97), (anon_sym_LBRACE, ACTIONS 442),
     (anon_sym_LBRACK, ACTIONS 103), (anon_sym_null, ACTIONS 105),
     (anon_sym_LPAREN, ACTIONS 498), (anon_sym_throw, ACTIONS 109), (anon_sym_LT, ACTIONS 111),
     (sym_increment_operator, ACTIONS 113), (sym_minus_operator, ACTIONS 117),
     (anon_sym_BANG, ACTIONS 119), (anon_sym_TILDE, ACTIONS 121), (anon_sym_await, ACTIONS 432),
     (anon_sym_SEMI, ACTIONS 474), (anon_sym_switch, ACTIONS 412),
     (sym_rethrow_builtin, ACTIONS 151), (anon_sym_new, ACTIONS 155),
     (sym_const_builtin, ACTIONS 478), (anon_sym_this, ACTIONS 159),
     (anon_sym_super, ACTIONS 161), (anon_sym_SLASH_SLASH, ACTIONS 3),
     (anon_sym_SLASH_STAR, ACTIONS 5), (anon_sym_SLASH_SLASH_SLASH, ACTIONS 7),
     (sym__block_comment, ACTIONS 9), (sym__documentation_block_comment, ACTIONS 11)]"

lemma row_ok_187: "table_row_ok 187 ts_parse_table_187"
  by (simp add: row_simps ts_parse_table_187_def)

definition ts_parse_table_188 :: table_row where
  "ts_parse_table_188 = [
     (sym__bool_literal, STATE 989), (sym__numeric_literal, STATE 989),
     (sym__literal, STATE 962), (sym_symbol_literal, STATE 989), (sym_true, STATE 900),
     (sym_false, STATE 900), (sym_string_literal, STATE 989),
     (sym__string_literal_double_quotes, STATE 627),
     (sym__string_literal_single_quotes, STATE 627),
     (sym__string_literal_double_quotes_multiple, STATE 627),
     (sym__string_literal_single_quotes_multiple, STATE 627),
     (sym__raw_string_literal_double_quotes, STATE 627),
     (sym__raw_string_literal_single_quotes, STATE 627),
     (sym__raw_string_literal_double_quotes_multiple, STATE 627),
     (sym__raw_string_literal_single_quotes_multiple, STATE 627), (sym_list_literal, STATE 989),
     (sym_set_or_map_literal, STATE 989), (sym_null_literal, STATE 989),
     (sym_record_literal, STATE 989), (sym__record_literal_no_const, STATE 924),
     (sym__expression, STATE 3260), (sym__real_expression, STATE 660),
     (sym_throw_expression, STATE 908), (sym_rethrow_expression, STATE 908),
     (sym_assignment_expression, STATE 908), (sym_assignable_expression, STATE 1940),
     (sym_function_expression, STATE 962), (sym_if_null_expression, STATE 1477),
     (sym_conditional_expression, STATE 1477), (sym_logical_or_expression, STATE 1477),
     (sym_logical_and_expression, STATE 1477), (sym_equality_expression, STATE 1477),
     (sym_type_cast_expression, STATE 1477), (sym_type_test_expression, STATE 1477),
     (sym_relational_expression, STATE 1477), (sym_bitwise_or_expression, STATE 1477),
     (sym_bitwise_xor_expression, STATE 1477), (sym_bitwise_and_expression, STATE 1477),
     (sym_shift_expression, STATE 1477), (sym_additive_expression, STATE 1477),
     (sym_multiplicative_expression, STATE 1477), (sym__unary_expression, STATE 1121),
     (sym_unary_expression, STATE 1303), (sym__postfix_expression, STATE 1303),
     (sym_postfix_expression, STATE 1301), (sym_prefix_operator, STATE 431),
     (sym_negation_operator, STATE 1450), (sym__exclamation_operator, STATE 1451),
     (sym_tilde_operator, STATE 1385), (sym_await_expression, STATE 1302),
     (sym_new_expression, STATE 962), (sym_const_object_expression, STATE 962),
     (sym__primary, STATE 668), (sym_parenthesized_expression, STATE 962),
     (sym_constructor_invocation, STATE 643), (sym_constructor_tearoff, STATE 962),
     (sym_type_arguments, STATE 3200), (sym_switch_expression, STATE 962),
     (sym__parenthesized_pattern, STATE 3182), (sym_list_pattern, STATE 3182),
     (sym_map_pattern, STATE 3182), (sym_record_pattern, STATE 3182),
     (sym_object_pattern, STATE 3182), (sym__outer_pattern, STATE 3410),
     (sym_pattern_assignment, STATE 908), (sym_type_parameters, STATE 2932),
     (sym__type_name, STATE 2661), (sym__formal_parameter_part, STATE 2339),
     (sym_formal_parameter_list, STATE 2020), (sym__strict_formal_parameter_list, STATE 2016),
     (sym__new_builtin, STATE 2079), (sym_this, STATE 962), (sym_super, STATE 1337),
     (sym__semicolon, STATE 198), (sym_comment, STATE 188),
     (sym_documentation_comment, STATE 188), (aux_sym_string_literal_repeat1, STATE 474),
     (sym_identifier, ACTIONS 494), (anon_sym_POUND, ACTIONS 73),
     (sym_decimal_integer_literal, ACTIONS 75), (sym_hex_integer_literal, ACTIONS 77),
     (sym_decimal_floating_point_literal, ACTIONS 75), (anon_sym_true, ACTIONS 79),
     (anon_sym_false, ACTIONS 81), (anon_sym_DQUOTE, ACTIONS 83), (anon_sym_SQUOTE, ACTIONS 85),
     (anon_sym_DQUOTE_DQUOTE_DQUOTE, ACTIONS 87), (anon_sym_SQUOTE_SQUOTE_SQUOTE, ACTIONS 89),
     (anon_sym_r_DQUOTE, ACTIONS 91), (anon_sym_r_SQUOTE, ACTIONS 93),
     (anon_sym_r_DQUOTE_DQUOTE_DQUOTE, ACTIONS 95),
     (anon_sym_r_SQUOTE_SQUOTE_SQUOTE, ACTIONS 97), (anon_sym_LBRACE, ACTIONS 442),
     (anon_sym_LBRACK, ACTIONS 103), (anon_sym_null, ACTIONS 105),
     (anon_sym_LPAREN, ACTIONS 498), (anon_sym_throw, ACTIONS 109), (anon_sym_LT, ACTIONS 111),
     (sym_increment_operator, ACTIONS 113), (sym_minus_operator, ACTIONS 117),
     (anon_sym_BANG, ACTIONS 119), (anon_sym_TILDE, ACTIONS 121), (anon_sym_await, ACTIONS 432),
     (anon_sym_SEMI, ACTIONS 474), (anon_sym_switch, ACTIONS 412),
     (sym_rethrow_builtin, ACTIONS 151), (anon_sym_new, ACTIONS 155),
     (sym_const_builtin, ACTIONS 478), (anon_sym_this, ACTIONS 159),
     (anon_sym_super, ACTIONS 161), (anon_sym_SLASH_SLASH, ACTIONS 3),
     (anon_sym_SLASH_STAR, ACTIONS 5), (anon_sym_SLASH_SLASH_SLASH, ACTIONS 7),
     (sym__block_comment, ACTIONS 9), (sym__documentation_block_comment, ACTIONS 11)]"

lemma row_ok_188: "table_row_ok 188 ts_parse_table_188"
  by (simp add: row_simps ts_parse_table_188_def)

definition ts_parse_table_189 :: table_row where
  "ts_parse_table_189 = [
     (sym__bool_literal, STATE 989), (sym__numeric_literal, STATE 989),
     (sym__literal, STATE 962), (sym_symbol_literal, STATE 989), (sym_true, STATE 900),
     (sym_false, STATE 900), (sym_string_literal, STATE 989),
     (sym__string_literal_double_quotes, STATE 627),
     (sym__string_literal_single_quotes, STATE 627),
     (sym__string_literal_double_quotes_multiple, STATE 627),
     (sym__string_literal_single_quotes_multiple, STATE 627),
     (sym__raw_string_literal_double_quotes, STATE 627),
     (sym__raw_string_literal_single_quotes, STATE 627),
     (sym__raw_string_literal_double_quotes_multiple, STATE 627),
     (sym__raw_string_literal_single_quotes_multiple, STATE 627), (sym_list_literal, STATE 989),
     (sym_set_or_map_literal, STATE 989), (sym_null_literal, STATE 989),
     (sym_record_literal, STATE 989), (sym__record_literal_no_const, STATE 924),
     (sym__expression, STATE 3138), (sym__real_expression, STATE 660),
     (sym_throw_expression, STATE 908), (sym_rethrow_expression, STATE 908),
     (sym_assignment_expression, STATE 908), (sym_assignable_expression, STATE 1940),
     (sym_function_expression, STATE 962), (sym_if_null_expression, STATE 1477),
     (sym_conditional_expression, STATE 1477), (sym_logical_or_expression, STATE 1477),
     (sym_logical_and_expression, STATE 1477), (sym_equality_expression, STATE 1477),
     (sym_type_cast_expression, STATE 1477), (sym_type_test_expression, STATE 1477),
     (sym_relational_expression, STATE 1477), (sym_bitwise_or_expression, STATE 1477),
     (sym_bitwise_xor_expression, STATE 1477), (sym_bitwise_and_expression, STATE 1477),
     (sym_shift_expression, STATE 1477), (sym_additive_expression, STATE 1477),
     (sym_multiplicative_expression, STATE 1477), (sym__unary_expression, STATE 1121),
     (sym_unary_expression, STATE 1303), (sym__postfix_expression, STATE 1303),
     (sym_postfix_expression, STATE 1301), (sym_prefix_operator, STATE 431),
     (sym_negation_operator, STATE 1450), (sym__exclamation_operator, STATE 1451),
     (sym_tilde_operator, STATE 1385), (sym_await_expression, STATE 1302),
     (sym_new_expression, STATE 962), (sym_const_object_expression, STATE 962),
     (sym__primary, STATE 668), (sym_parenthesized_expression, STATE 962),
     (sym_constructor_invocation, STATE 643), (sym_constructor_tearoff, STATE 962),
     (sym_type_arguments, STATE 3200), (sym_switch_expression, STATE 962),
     (sym__parenthesized_pattern, STATE 3182), (sym_list_pattern, STATE 3182),
     (sym_map_pattern, STATE 3182), (sym_record_pattern, STATE 3182),
     (sym_object_pattern, STATE 3182), (sym__outer_pattern, STATE 3410),
     (sym_pattern_assignment, STATE 908), (sym_type_parameters, STATE 2932),
     (sym__type_name, STATE 2661), (sym__formal_parameter_part, STATE 2339),
     (sym_formal_parameter_list, STATE 2020), (sym__strict_formal_parameter_list, STATE 2016),
     (sym__new_builtin, STATE 2079), (sym_this, STATE 962), (sym_super, STATE 1337),
     (sym__semicolon, STATE 536), (sym_comment, STATE 189),
     (sym_documentation_comment, STATE 189), (aux_sym_string_literal_repeat1, STATE 474),
     (sym_identifier, ACTIONS 494), (anon_sym_POUND, ACTIONS 73),
     (sym_decimal_integer_literal, ACTIONS 75), (sym_hex_integer_literal, ACTIONS 77),
     (sym_decimal_floating_point_literal, ACTIONS 75), (anon_sym_true, ACTIONS 79),
     (anon_sym_false, ACTIONS 81), (anon_sym_DQUOTE, ACTIONS 83), (anon_sym_SQUOTE, ACTIONS 85),
     (anon_sym_DQUOTE_DQUOTE_DQUOTE, ACTIONS 87), (anon_sym_SQUOTE_SQUOTE_SQUOTE, ACTIONS 89),
     (anon_sym_r_DQUOTE, ACTIONS 91), (anon_sym_r_SQUOTE, ACTIONS 93),
     (anon_sym_r_DQUOTE_DQUOTE_DQUOTE, ACTIONS 95),
     (anon_sym_r_SQUOTE_SQUOTE_SQUOTE, ACTIONS 97), (anon_sym_LBRACE, ACTIONS 442),
     (anon_sym_LBRACK, ACTIONS 103), (anon_sym_null, ACTIONS 105),
     (anon_sym_LPAREN, ACTIONS 498), (anon_sym_throw, ACTIONS 109), (anon_sym_LT, ACTIONS 111),
     (sym_increment_operator, ACTIONS 113), (sym_minus_operator, ACTIONS 117),
     (anon_sym_BANG, ACTIONS 119), (anon_sym_TILDE, ACTIONS 121), (anon_sym_await, ACTIONS 432),
     (anon_sym_SEMI, ACTIONS 474), (anon_sym_switch, ACTIONS 412),
     (sym_rethrow_builtin, ACTIONS 151), (anon_sym_new, ACTIONS 155),
     (sym_const_builtin, ACTIONS 478), (anon_sym_this, ACTIONS 159),
     (anon_sym_super, ACTIONS 161), (anon_sym_SLASH_SLASH, ACTIONS 3),
     (anon_sym_SLASH_STAR, ACTIONS 5), (anon_sym_SLASH_SLASH_SLASH, ACTIONS 7),
     (sym__block_comment, ACTIONS 9), (sym__documentation_block_comment, ACTIONS 11)]"

lemma row_ok_189: "table_row_ok 189 ts_parse_table_189"
  by (simp add: row_simps ts_parse_table_189_def)

definition ts_parse_table_190 :: table_row where
  "ts_parse_table_190 = [
     (sym__bool_literal, STATE 989), (sym__numeric_literal, STATE 989),
     (sym__literal, STATE 962), (sym_symbol_literal, STATE 989), (sym_true, STATE 900),
     (sym_false, STATE 900), (sym_string_literal, STATE 989),
     (sym__string_literal_double_quotes, STATE 627),
     (sym__string_literal_single_quotes, STATE 627),
     (sym__string_literal_double_quotes_multiple, STATE 627),
     (sym__string_literal_single_quotes_multiple, STATE 627),
     (sym__raw_string_literal_double_quotes, STATE 627),
     (sym__raw_string_literal_single_quotes, STATE 627),
     (sym__raw_string_literal_double_quotes_multiple, STATE 627),
     (sym__raw_string_literal_single_quotes_multiple, STATE 627), (sym_list_literal, STATE 989),
     (sym_set_or_map_literal, STATE 989), (sym_null_literal, STATE 989),
     (sym_record_literal, STATE 989), (sym__record_literal_no_const, STATE 924),
     (sym__expression, STATE 2879), (sym__real_expression, STATE 660),
     (sym_throw_expression, STATE 908), (sym_rethrow_expression, STATE 908),
     (sym_assignment_expression, STATE 908), (sym_assignable_expression, STATE 1940),
     (sym_function_expression, STATE 962), (sym_if_null_expression, STATE 1477),
     (sym_conditional_expression, STATE 1477), (sym_logical_or_expression, STATE 1477),
     (sym_logical_and_expression, STATE 1477), (sym_equality_expression, STATE 1477),
     (sym_type_cast_expression, STATE 1477), (sym_type_test_expression, STATE 1477),
     (sym_relational_expression, STATE 1477), (sym_bitwise_or_expression, STATE 1477),
     (sym_bitwise_xor_expression, STATE 1477), (sym_bitwise_and_expression, STATE 1477),
     (sym_shift_expression, STATE 1477), (sym_additive_expression, STATE 1477),
     (sym_multiplicative_expression, STATE 1477), (sym__unary_expression, STATE 1121),
     (sym_unary_expression, STATE 1303), (sym__postfix_expression, STATE 1303),
     (sym_postfix_expression, STATE 1301), (sym_prefix_operator, STATE 431),
     (sym_negation_operator, STATE 1450), (sym__exclamation_operator, STATE 1451),
     (sym_tilde_operator, STATE 1385), (sym_await_expression, STATE 1302),
     (sym_new_expression, STATE 962), (sym_const_object_expression, STATE 962),
     (sym__primary, STATE 668), (sym_parenthesized_expression, STATE 962),
     (sym_constructor_invocation, STATE 643), (sym_constructor_tearoff, STATE 962),
     (sym_type_arguments, STATE 3200), (sym_switch_expression, STATE 962),
     (sym__parenthesized_pattern, STATE 3182), (sym_list_pattern, STATE 3182),
     (sym_map_pattern, STATE 3182), (sym_record_pattern, STATE 3182),
     (sym_object_pattern, STATE 3182), (sym__outer_pattern, STATE 3410),
     (sym_pattern_assignment, STATE 908), (sym_type_parameters, STATE 2932),
     (sym__type_name, STATE 2661), (sym__formal_parameter_part, STATE 2339),
     (sym_formal_parameter_list, STATE 2020), (sym__strict_formal_parameter_list, STATE 2016),
     (sym__new_builtin, STATE 2079), (sym_this, STATE 962), (sym_super, STATE 1337),
     (sym_comment, STATE 190), (sym_documentation_comment, STATE 190),
     (aux_sym_string_literal_repeat1, STATE 474), (sym_identifier, ACTIONS 494),
     (anon_sym_POUND, ACTIONS 73), (sym_decimal_integer_literal, ACTIONS 75),
     (sym_hex_integer_literal, ACTIONS 77), (sym_decimal_floating_point_literal, ACTIONS 75),
     (anon_sym_true, ACTIONS 79), (anon_sym_false, ACTIONS 81), (anon_sym_DQUOTE, ACTIONS 83),
     (anon_sym_SQUOTE, ACTIONS 85), (anon_sym_DQUOTE_DQUOTE_DQUOTE, ACTIONS 87),
     (anon_sym_SQUOTE_SQUOTE_SQUOTE, ACTIONS 89), (anon_sym_r_DQUOTE, ACTIONS 91),
     (anon_sym_r_SQUOTE, ACTIONS 93), (anon_sym_r_DQUOTE_DQUOTE_DQUOTE, ACTIONS 95),
     (anon_sym_r_SQUOTE_SQUOTE_SQUOTE, ACTIONS 97), (anon_sym_LBRACE, ACTIONS 442),
     (anon_sym_LBRACK, ACTIONS 103), (anon_sym_null, ACTIONS 105),
     (anon_sym_LPAREN, ACTIONS 498), (anon_sym_RPAREN, ACTIONS 666),
     (anon_sym_throw, ACTIONS 109), (anon_sym_LT, ACTIONS 111),
     (sym_increment_operator, ACTIONS 113), (sym_minus_operator, ACTIONS 117),
     (anon_sym_BANG, ACTIONS 119), (anon_sym_TILDE, ACTIONS 121), (anon_sym_await, ACTIONS 432),
     (anon_sym_switch, ACTIONS 412), (sym_rethrow_builtin, ACTIONS 151),
     (anon_sym_new, ACTIONS 155), (sym_const_builtin, ACTIONS 478), (anon_sym_this, ACTIONS 159),
     (anon_sym_super, ACTIONS 161), (anon_sym_SLASH_SLASH, ACTIONS 3),
     (anon_sym_SLASH_STAR, ACTIONS 5), (anon_sym_SLASH_SLASH_SLASH, ACTIONS 7),
     (sym__block_comment, ACTIONS 9), (sym__documentation_block_comment, ACTIONS 11)]"

lemma row_ok_190: "table_row_ok 190 ts_parse_table_190"
  by (simp add: row_simps ts_parse_table_190_def)

definition ts_parse_table_191 :: table_row where
  "ts_parse_table_191 = [
     (sym__bool_literal, STATE 989), (sym__numeric_literal, STATE 989),
     (sym__literal, STATE 962), (sym_symbol_literal, STATE 989), (sym_true, STATE 900),
     (sym_false, STATE 900), (sym_string_literal, STATE 989),
     (sym__string_literal_double_quotes, STATE 627),
     (sym__string_literal_single_quotes, STATE 627),
     (sym__string_literal_double_quotes_multiple, STATE 627),
     (sym__string_literal_single_quotes_multiple, STATE 627),
     (sym__raw_string_literal_double_quotes, STATE 627),
     (sym__raw_string_literal_single_quotes, STATE 627),
     (sym__raw_string_literal_double_quotes_multiple, STATE 627),
     (sym__raw_string_literal_single_quotes_multiple, STATE 627), (sym_list_literal, STATE 989),
     (sym_set_or_map_literal, STATE 989), (sym_null_literal, STATE 989),
     (sym_record_literal, STATE 989), (sym__record_literal_no_const, STATE 924),
     (sym__expression, STATE 3130), (sym__real_expression, STATE 660),
     (sym_throw_expression, STATE 908), (sym_rethrow_expression, STATE 908),
     (sym_assignment_expression, STATE 908), (sym_assignable_expression, STATE 1940),
     (sym_function_expression, STATE 962), (sym_if_null_expression, STATE 1477),
     (sym_conditional_expression, STATE 1477), (sym_logical_or_expression, STATE 1477),
     (sym_logical_and_expression, STATE 1477), (sym_equality_expression, STATE 1477),
     (sym_type_cast_expression, STATE 1477), (sym_type_test_expression, STATE 1477),
     (sym_relational_expression, STATE 1477), (sym_bitwise_or_expression, STATE 1477),
     (sym_bitwise_xor_expression, STATE 1477), (sym_bitwise_and_expression, STATE 1477),
     (sym_shift_expression, STATE 1477), (sym_additive_expression, STATE 1477),
     (sym_multiplicative_expression, STATE 1477), (sym__unary_expression, STATE 1121),
     (sym_unary_expression, STATE 1303), (sym__postfix_expression, STATE 1303),
     (sym_postfix_expression, STATE 1301), (sym_prefix_operator, STATE 431),
     (sym_negation_operator, STATE 1450), (sym__exclamation_operator, STATE 1451),
     (sym_tilde_operator, STATE 1385), (sym_await_expression, STATE 1302),
     (sym_new_expression, STATE 962), (sym_const_object_expression, STATE 962),
     (sym__primary, STATE 668), (sym_parenthesized_expression, STATE 962),
     (sym_constructor_invocation, STATE 643), (sym_constructor_tearoff, STATE 962),
     (sym_type_arguments, STATE 3200), (sym_switch_expression, STATE 962),
     (sym__parenthesized_pattern, STATE 3182), (sym_list_pattern, STATE 3182),
     (sym_map_pattern, STATE 3182), (sym_record_pattern, STATE 3182),
     (sym_object_pattern, STATE 3182), (sym__outer_pattern, STATE 3410),
     (sym_pattern_assignment, STATE 908), (sym_type_parameters, STATE 2932),
     (sym__type_name, STATE 2661), (sym__formal_parameter_part, STATE 2339),
     (sym_formal_parameter_list, STATE 2020), (sym__strict_formal_parameter_list, STATE 2016),
     (sym__new_builtin, STATE 2079), (sym_this, STATE 962), (sym_super, STATE 1337),
     (sym_comment, STATE 191), (sym_documentation_comment, STATE 191),
     (aux_sym_string_literal_repeat1, STATE 474), (sym_identifier, ACTIONS 494),
     (anon_sym_POUND, ACTIONS 73), (sym_decimal_integer_literal, ACTIONS 75),
     (sym_hex_integer_literal, ACTIONS 77), (sym_decimal_floating_point_literal, ACTIONS 75),
     (anon_sym_true, ACTIONS 79), (anon_sym_false, ACTIONS 81), (anon_sym_DQUOTE, ACTIONS 83),
     (anon_sym_SQUOTE, ACTIONS 85), (anon_sym_DQUOTE_DQUOTE_DQUOTE, ACTIONS 87),
     (anon_sym_SQUOTE_SQUOTE_SQUOTE, ACTIONS 89), (anon_sym_r_DQUOTE, ACTIONS 91),
     (anon_sym_r_SQUOTE, ACTIONS 93), (anon_sym_r_DQUOTE_DQUOTE_DQUOTE, ACTIONS 95),
     (anon_sym_r_SQUOTE_SQUOTE_SQUOTE, ACTIONS 97), (anon_sym_LBRACE, ACTIONS 442),
     (anon_sym_LBRACK, ACTIONS 103), (anon_sym_null, ACTIONS 105),
     (anon_sym_LPAREN, ACTIONS 498), (anon_sym_throw, ACTIONS 109), (anon_sym_LT, ACTIONS 111),
     (anon_sym_STAR, ACTIONS 668), (sym_increment_operator, ACTIONS 113),
     (sym_minus_operator, ACTIONS 117), (anon_sym_BANG, ACTIONS 119),
     (anon_sym_TILDE, ACTIONS 121), (anon_sym_await, ACTIONS 432),
     (anon_sym_switch, ACTIONS 412), (sym_rethrow_builtin, ACTIONS 151),
     (anon_sym_new, ACTIONS 155), (sym_const_builtin, ACTIONS 478), (anon_sym_this, ACTIONS 159),
     (anon_sym_super, ACTIONS 161), (anon_sym_SLASH_SLASH, ACTIONS 3),
     (anon_sym_SLASH_STAR, ACTIONS 5), (anon_sym_SLASH_SLASH_SLASH, ACTIONS 7),
     (sym__block_comment, ACTIONS 9), (sym__documentation_block_comment, ACTIONS 11)]"

lemma row_ok_191: "table_row_ok 191 ts_parse_table_191"
  by (simp add: row_simps ts_parse_table_191_def)

definition ts_parse_table_192 :: table_row where
  "ts_parse_table_192 = [
     (sym__bool_literal, STATE 989), (sym__numeric_literal, STATE 989),
     (sym__literal, STATE 962), (sym_symbol_literal, STATE 989), (sym_true, STATE 900),
     (sym_false, STATE 900), (sym_string_literal, STATE 989),
     (sym__string_literal_double_quotes, STATE 627),
     (sym__string_literal_single_quotes, STATE 627),
     (sym__string_literal_double_quotes_multiple, STATE 627),
     (sym__string_literal_single_quotes_multiple, STATE 627),
     (sym__raw_string_literal_double_quotes, STATE 627),
     (sym__raw_string_literal_single_quotes, STATE 627),
     (sym__raw_string_literal_double_quotes_multiple, STATE 627),
     (sym__raw_string_literal_single_quotes_multiple, STATE 627), (sym_list_literal, STATE 989),
     (sym_set_or_map_literal, STATE 989), (sym_null_literal, STATE 989),
     (sym_record_literal, STATE 989), (sym__record_literal_no_const, STATE 924),
     (sym__expression, STATE 2601), (sym__real_expression, STATE 660),
     (sym_throw_expression, STATE 908), (sym_rethrow_expression, STATE 908),
     (sym_assignment_expression, STATE 908), (sym_assignable_expression, STATE 1940),
     (sym_function_expression, STATE 962), (sym_if_null_expression, STATE 1477),
     (sym_conditional_expression, STATE 1477), (sym_logical_or_expression, STATE 1477),
     (sym_logical_and_expression, STATE 1477), (sym_equality_expression, STATE 1477),
     (sym_type_cast_expression, STATE 1477), (sym_type_test_expression, STATE 1477),
     (sym_relational_expression, STATE 1477), (sym_bitwise_or_expression, STATE 1477),
     (sym_bitwise_xor_expression, STATE 1477), (sym_bitwise_and_expression, STATE 1477),
     (sym_shift_expression, STATE 1477), (sym_additive_expression, STATE 1477),
     (sym_multiplicative_expression, STATE 1477), (sym__unary_expression, STATE 1121),
     (sym_unary_expression, STATE 1303), (sym__postfix_expression, STATE 1303),
     (sym_postfix_expression, STATE 1301), (sym_prefix_operator, STATE 431),
     (sym_negation_operator, STATE 1450), (sym__exclamation_operator, STATE 1451),
     (sym_tilde_operator, STATE 1385), (sym_await_expression, STATE 1302),
     (sym_new_expression, STATE 962), (sym_const_object_expression, STATE 962),
     (sym__primary, STATE 668), (sym_parenthesized_expression, STATE 962),
     (sym_constructor_invocation, STATE 643), (sym_constructor_tearoff, STATE 962),
     (sym_type_arguments, STATE 3200), (sym_switch_expression, STATE 962),
     (sym__parenthesized_pattern, STATE 3182), (sym_list_pattern, STATE 3182),
     (sym_map_pattern, STATE 3182), (sym_record_pattern, STATE 3182),
     (sym_object_pattern, STATE 3182), (sym__outer_pattern, STATE 3410),
     (sym_pattern_assignment, STATE 908), (sym_type_parameters, STATE 2932),
     (sym__type_name, STATE 2661), (sym__formal_parameter_part, STATE 2339),
     (sym_formal_parameter_list, STATE 2020), (sym__strict_formal_parameter_list, STATE 2016),
     (sym__new_builtin, STATE 2079), (sym_this, STATE 962), (sym_super, STATE 1337),
     (sym_comment, STATE 192), (sym_documentation_comment, STATE 192),
     (aux_sym_string_literal_repeat1, STATE 474), (sym_identifier, ACTIONS 494),
     (anon_sym_POUND, ACTIONS 73), (sym_decimal_integer_literal, ACTIONS 75),
     (sym_hex_integer_literal, ACTIONS 77), (sym_decimal_floating_point_literal, ACTIONS 75),
     (anon_sym_true, ACTIONS 79), (anon_sym_false, ACTIONS 81), (anon_sym_DQUOTE, ACTIONS 83),
     (anon_sym_SQUOTE, ACTIONS 85), (anon_sym_DQUOTE_DQUOTE_DQUOTE, ACTIONS 87),
     (anon_sym_SQUOTE_SQUOTE_SQUOTE, ACTIONS 89), (anon_sym_r_DQUOTE, ACTIONS 91),
     (anon_sym_r_SQUOTE, ACTIONS 93), (anon_sym_r_DQUOTE_DQUOTE_DQUOTE, ACTIONS 95),
     (anon_sym_r_SQUOTE_SQUOTE_SQUOTE, ACTIONS 97), (anon_sym_LBRACE, ACTIONS 442),
     (anon_sym_LBRACK, ACTIONS 103), (anon_sym_null, ACTIONS 105),
     (anon_sym_LPAREN, ACTIONS 498), (anon_sym_throw, ACTIONS 109),
     (anon_sym_QMARK, ACTIONS 470), (anon_sym_LT, ACTIONS 111),
     (sym_increment_operator, ACTIONS 113), (sym_minus_operator, ACTIONS 117),
     (anon_sym_BANG, ACTIONS 119), (anon_sym_TILDE, ACTIONS 121), (anon_sym_await, ACTIONS 432),
     (anon_sym_switch, ACTIONS 412), (sym_rethrow_builtin, ACTIONS 151),
     (anon_sym_new, ACTIONS 155), (sym_const_builtin, ACTIONS 478), (anon_sym_this, ACTIONS 159),
     (anon_sym_super, ACTIONS 161), (anon_sym_SLASH_SLASH, ACTIONS 3),
     (anon_sym_SLASH_STAR, ACTIONS 5), (anon_sym_SLASH_SLASH_SLASH, ACTIONS 7),
     (sym__block_comment, ACTIONS 9), (sym__documentation_block_comment, ACTIONS 11)]"

lemma row_ok_192: "table_row_ok 192 ts_parse_table_192"
  by (simp add: row_simps ts_parse_table_192_def)

definition ts_parse_table_193 :: table_row where
  "ts_parse_table_193 = [
     (sym__bool_literal, STATE 989), (sym__numeric_literal, STATE 989),
     (sym__literal, STATE 962), (sym_symbol_literal, STATE 989), (sym_true, STATE 900),
     (sym_false, STATE 900), (sym_string_literal, STATE 989),
     (sym__string_literal_double_quotes, STATE 627),
     (sym__string_literal_single_quotes, STATE 627),
     (sym__string_literal_double_quotes_multiple, STATE 627),
     (sym__string_literal_single_quotes_multiple, STATE 627),
     (sym__raw_string_literal_double_quotes, STATE 627),
     (sym__raw_string_literal_single_quotes, STATE 627),
     (sym__raw_string_literal_double_quotes_multiple, STATE 627),
     (sym__raw_string_literal_single_quotes_multiple, STATE 627), (sym_list_literal, STATE 989),
     (sym_set_or_map_literal, STATE 989), (sym_null_literal, STATE 989),
     (sym_record_literal, STATE 989), (sym__record_literal_no_const, STATE 924),
     (sym__expression, STATE 3155), (sym__real_expression, STATE 660),
     (sym_throw_expression, STATE 908), (sym_rethrow_expression, STATE 908),
     (sym_assignment_expression, STATE 908), (sym_assignable_expression, STATE 1940),
     (sym_function_expression, STATE 962), (sym_if_null_expression, STATE 1477),
     (sym_conditional_expression, STATE 1477), (sym_logical_or_expression, STATE 1477),
     (sym_logical_and_expression, STATE 1477), (sym_equality_expression, STATE 1477),
     (sym_type_cast_expression, STATE 1477), (sym_type_test_expression, STATE 1477),
     (sym_relational_expression, STATE 1477), (sym_bitwise_or_expression, STATE 1477),
     (sym_bitwise_xor_expression, STATE 1477), (sym_bitwise_and_expression, STATE 1477),
     (sym_shift_expression, STATE 1477), (sym_additive_expression, STATE 1477),
     (sym_multiplicative_expression, STATE 1477), (sym__unary_expression, STATE 1121),
     (sym_unary_expression, STATE 1303), (sym__postfix_expression, STATE 1303),
     (sym_postfix_expression, STATE 1301), (sym_prefix_operator, STATE 431),
     (sym_negation_operator, STATE 1450), (sym__exclamation_operator, STATE 1451),
     (sym_tilde_operator, STATE 1385), (sym_await_expression, STATE 1302),
     (sym_new_expression, STATE 962), (sym_const_object_expression, STATE 962),
     (sym__primary, STATE 668), (sym_parenthesized_expression, STATE 962),
     (sym_constructor_invocation, STATE 643), (sym_constructor_tearoff, STATE 962),
     (sym_type_arguments, STATE 3200), (sym_switch_expression, STATE 962),
     (sym__parenthesized_pattern, STATE 3182), (sym_list_pattern, STATE 3182),
     (sym_map_pattern, STATE 3182), (sym_record_pattern, STATE 3182),
     (sym_object_pattern, STATE 3182), (sym__outer_pattern, STATE 3410),
     (sym_pattern_assignment, STATE 908), (sym_type_parameters, STATE 2932),
     (sym__type_name, STATE 2661), (sym__formal_parameter_part, STATE 2339),
     (sym_formal_parameter_list, STATE 2020), (sym__strict_formal_parameter_list, STATE 2016),
     (sym__new_builtin, STATE 2079), (sym_this, STATE 962), (sym_super, STATE 1337),
     (sym_comment, STATE 193), (sym_documentation_comment, STATE 193),
     (aux_sym_string_literal_repeat1, STATE 474), (sym_identifier, ACTIONS 494),
     (anon_sym_POUND, ACTIONS 73), (sym_decimal_integer_literal, ACTIONS 75),
     (sym_hex_integer_literal, ACTIONS 77), (sym_decimal_floating_point_literal, ACTIONS 75),
     (anon_sym_true, ACTIONS 79), (anon_sym_false, ACTIONS 81), (anon_sym_DQUOTE, ACTIONS 83),
     (anon_sym_SQUOTE, ACTIONS 85), (anon_sym_DQUOTE_DQUOTE_DQUOTE, ACTIONS 87),
     (anon_sym_SQUOTE_SQUOTE_SQUOTE, ACTIONS 89), (anon_sym_r_DQUOTE, ACTIONS 91),
     (anon_sym_r_SQUOTE, ACTIONS 93), (anon_sym_r_DQUOTE_DQUOTE_DQUOTE, ACTIONS 95),
     (anon_sym_r_SQUOTE_SQUOTE_SQUOTE, ACTIONS 97), (anon_sym_LBRACE, ACTIONS 442),
     (anon_sym_LBRACK, ACTIONS 103), (anon_sym_null, ACTIONS 105),
     (anon_sym_LPAREN, ACTIONS 498), (anon_sym_RPAREN, ACTIONS 670),
     (anon_sym_throw, ACTIONS 109), (anon_sym_LT, ACTIONS 111),
     (sym_increment_operator, ACTIONS 113), (sym_minus_operator, ACTIONS 117),
     (anon_sym_BANG, ACTIONS 119), (anon_sym_TILDE, ACTIONS 121), (anon_sym_await, ACTIONS 432),
     (anon_sym_switch, ACTIONS 412), (sym_rethrow_builtin, ACTIONS 151),
     (anon_sym_new, ACTIONS 155), (sym_const_builtin, ACTIONS 478), (anon_sym_this, ACTIONS 159),
     (anon_sym_super, ACTIONS 161), (anon_sym_SLASH_SLASH, ACTIONS 3),
     (anon_sym_SLASH_STAR, ACTIONS 5), (anon_sym_SLASH_SLASH_SLASH, ACTIONS 7),
     (sym__block_comment, ACTIONS 9), (sym__documentation_block_comment, ACTIONS 11)]"

lemma row_ok_193: "table_row_ok 193 ts_parse_table_193"
  by (simp add: row_simps ts_parse_table_193_def)

definition ts_parse_table_194 :: table_row where
  "ts_parse_table_194 = [
     (sym__bool_literal, STATE 989), (sym__numeric_literal, STATE 989),
     (sym__literal, STATE 962), (sym_symbol_literal, STATE 989), (sym_true, STATE 900),
     (sym_false, STATE 900), (sym_string_literal, STATE 989),
     (sym__string_literal_double_quotes, STATE 627),
     (sym__string_literal_single_quotes, STATE 627),
     (sym__string_literal_double_quotes_multiple, STATE 627),
     (sym__string_literal_single_quotes_multiple, STATE 627),
     (sym__raw_string_literal_double_quotes, STATE 627),
     (sym__raw_string_literal_single_quotes, STATE 627),
     (sym__raw_string_literal_double_quotes_multiple, STATE 627),
     (sym__raw_string_literal_single_quotes_multiple, STATE 627), (sym_list_literal, STATE 989),
     (sym_set_or_map_literal, STATE 989), (sym_null_literal, STATE 989),
     (sym_record_literal, STATE 989), (sym__record_literal_no_const, STATE 924),
     (sym__expression, STATE 2687), (sym__real_expression, STATE 660),
     (sym_throw_expression, STATE 908), (sym_rethrow_expression, STATE 908),
     (sym_assignment_expression, STATE 908), (sym_assignable_expression, STATE 1940),
     (sym_function_expression, STATE 962), (sym_if_null_expression, STATE 1477),
     (sym_conditional_expression, STATE 1477), (sym_logical_or_expression, STATE 1477),
     (sym_logical_and_expression, STATE 1477), (sym_equality_expression, STATE 1477),
     (sym_type_cast_expression, STATE 1477), (sym_type_test_expression, STATE 1477),
     (sym_relational_expression, STATE 1477), (sym_bitwise_or_expression, STATE 1477),
     (sym_bitwise_xor_expression, STATE 1477), (sym_bitwise_and_expression, STATE 1477),
     (sym_shift_expression, STATE 1477), (sym_additive_expression, STATE 1477),
     (sym_multiplicative_expression, STATE 1477), (sym__unary_expression, STATE 1121),
     (sym_unary_expression, STATE 1303), (sym__postfix_expression, STATE 1303),
     (sym_postfix_expression, STATE 1301), (sym_prefix_operator, STATE 431),
     (sym_negation_operator, STATE 1450), (sym__exclamation_operator, STATE 1451),
     (sym_tilde_operator, STATE 1385), (sym_await_expression, STATE 1302),
     (sym_new_expression, STATE 962), (sym_const_object_expression, STATE 962),
     (sym__primary, STATE 668), (sym_parenthesized_expression, STATE 962),
     (sym_constructor_invocation, STATE 643), (sym_constructor_tearoff, STATE 962),
     (sym_type_arguments, STATE 3200), (sym_switch_expression, STATE 962),
     (sym__parenthesized_pattern, STATE 3182), (sym_list_pattern, STATE 3182),
     (sym_map_pattern, STATE 3182), (sym_record_pattern, STATE 3182),
     (sym_object_pattern, STATE 3182), (sym__outer_pattern, STATE 3410),
     (sym_pattern_assignment, STATE 908), (sym_type_parameters, STATE 2932),
     (sym__type_name, STATE 2661), (sym__formal_parameter_part, STATE 2339),
     (sym_formal_parameter_list, STATE 2020), (sym__strict_formal_parameter_list, STATE 2016),
     (sym__new_builtin, STATE 2079), (sym_this, STATE 962), (sym_super, STATE 1337),
     (sym_comment, STATE 194), (sym_documentation_comment, STATE 194),
     (aux_sym_string_literal_repeat1, STATE 474), (sym_identifier, ACTIONS 494),
     (anon_sym_POUND, ACTIONS 73), (sym_decimal_integer_literal, ACTIONS 75),
     (sym_hex_integer_literal, ACTIONS 77), (sym_decimal_floating_point_literal, ACTIONS 75),
     (anon_sym_true, ACTIONS 79), (anon_sym_false, ACTIONS 81), (anon_sym_DQUOTE, ACTIONS 83),
     (anon_sym_SQUOTE, ACTIONS 85), (anon_sym_DQUOTE_DQUOTE_DQUOTE, ACTIONS 87),
     (anon_sym_SQUOTE_SQUOTE_SQUOTE, ACTIONS 89), (anon_sym_r_DQUOTE, ACTIONS 91),
     (anon_sym_r_SQUOTE, ACTIONS 93), (anon_sym_r_DQUOTE_DQUOTE_DQUOTE, ACTIONS 95),
     (anon_sym_r_SQUOTE_SQUOTE_SQUOTE, ACTIONS 97), (anon_sym_LBRACE, ACTIONS 442),
     (anon_sym_LBRACK, ACTIONS 103), (anon_sym_null, ACTIONS 105),
     (anon_sym_LPAREN, ACTIONS 498), (anon_sym_RPAREN, ACTIONS 672),
     (anon_sym_throw, ACTIONS 109), (anon_sym_LT, ACTIONS 111),
     (sym_increment_operator, ACTIONS 113), (sym_minus_operator, ACTIONS 117),
     (anon_sym_BANG, ACTIONS 119), (anon_sym_TILDE, ACTIONS 121), (anon_sym_await, ACTIONS 432),
     (anon_sym_switch, ACTIONS 412), (sym_rethrow_builtin, ACTIONS 151),
     (anon_sym_new, ACTIONS 155), (sym_const_builtin, ACTIONS 478), (anon_sym_this, ACTIONS 159),
     (anon_sym_super, ACTIONS 161), (anon_sym_SLASH_SLASH, ACTIONS 3),
     (anon_sym_SLASH_STAR, ACTIONS 5), (anon_sym_SLASH_SLASH_SLASH, ACTIONS 7),
     (sym__block_comment, ACTIONS 9), (sym__documentation_block_comment, ACTIONS 11)]"

lemma row_ok_194: "table_row_ok 194 ts_parse_table_194"
  by (simp add: row_simps ts_parse_table_194_def)

definition ts_parse_table_195 :: table_row where
  "ts_parse_table_195 = [
     (sym__bool_literal, STATE 989), (sym__numeric_literal, STATE 989),
     (sym__literal, STATE 962), (sym_symbol_literal, STATE 989), (sym_true, STATE 900),
     (sym_false, STATE 900), (sym_string_literal, STATE 989),
     (sym__string_literal_double_quotes, STATE 627),
     (sym__string_literal_single_quotes, STATE 627),
     (sym__string_literal_double_quotes_multiple, STATE 627),
     (sym__string_literal_single_quotes_multiple, STATE 627),
     (sym__raw_string_literal_double_quotes, STATE 627),
     (sym__raw_string_literal_single_quotes, STATE 627),
     (sym__raw_string_literal_double_quotes_multiple, STATE 627),
     (sym__raw_string_literal_single_quotes_multiple, STATE 627), (sym_list_literal, STATE 989),
     (sym_set_or_map_literal, STATE 989), (sym_null_literal, STATE 989),
     (sym_record_literal, STATE 989), (sym__record_literal_no_const, STATE 924),
     (sym__expression, STATE 2679), (sym__real_expression, STATE 660),
     (sym_throw_expression, STATE 908), (sym_rethrow_expression, STATE 908),
     (sym_assignment_expression, STATE 908), (sym_assignable_expression, STATE 1940),
     (sym_function_expression, STATE 962), (sym_if_null_expression, STATE 1477),
     (sym_conditional_expression, STATE 1477), (sym_logical_or_expression, STATE 1477),
     (sym_logical_and_expression, STATE 1477), (sym_equality_expression, STATE 1477),
     (sym_type_cast_expression, STATE 1477), (sym_type_test_expression, STATE 1477),
     (sym_relational_expression, STATE 1477), (sym_bitwise_or_expression, STATE 1477),
     (sym_bitwise_xor_expression, STATE 1477), (sym_bitwise_and_expression, STATE 1477),
     (sym_shift_expression, STATE 1477), (sym_additive_expression, STATE 1477),
     (sym_multiplicative_expression, STATE 1477), (sym__unary_expression, STATE 1121),
     (sym_unary_expression, STATE 1303), (sym__postfix_expression, STATE 1303),
     (sym_postfix_expression, STATE 1301), (sym_prefix_operator, STATE 431),
     (sym_negation_operator, STATE 1450), (sym__exclamation_operator, STATE 1451),
     (sym_tilde_operator, STATE 1385), (sym_await_expression, STATE 1302),
     (sym_new_expression, STATE 962), (sym_const_object_expression, STATE 962),
     (sym__primary, STATE 668), (sym_parenthesized_expression, STATE 962),
     (sym_constructor_invocation, STATE 643), (sym_constructor_tearoff, STATE 962),
     (sym_type_arguments, STATE 3200), (sym_switch_expression, STATE 962),
     (sym__parenthesized_pattern, STATE 3182), (sym_list_pattern, STATE 3182),
     (sym_map_pattern, STATE 3182), (sym_record_pattern, STATE 3182),
     (sym_object_pattern, STATE 3182), (sym__outer_pattern, STATE 3410),
     (sym_pattern_assignment, STATE 908), (sym_type_parameters, STATE 2932),
     (sym__type_name, STATE 2661), (sym__formal_parameter_part, STATE 2339),
     (sym_formal_parameter_list, STATE 2020), (sym__strict_formal_parameter_list, STATE 2016),
     (sym__new_builtin, STATE 2079), (sym_this, STATE 962), (sym_super, STATE 1337),
     (sym_comment, STATE 195), (sym_documentation_comment, STATE 195),
     (aux_sym_string_literal_repeat1, STATE 474), (sym_identifier, ACTIONS 494),
     (anon_sym_POUND, ACTIONS 73), (sym_decimal_integer_literal, ACTIONS 75),
     (sym_hex_integer_literal, ACTIONS 77), (sym_decimal_floating_point_literal, ACTIONS 75),
     (anon_sym_true, ACTIONS 79), (anon_sym_false, ACTIONS 81), (anon_sym_DQUOTE, ACTIONS 83),
     (anon_sym_SQUOTE, ACTIONS 85), (anon_sym_DQUOTE_DQUOTE_DQUOTE, ACTIONS 87),
     (anon_sym_SQUOTE_SQUOTE_SQUOTE, ACTIONS 89), (anon_sym_r_DQUOTE, ACTIONS 91),
     (anon_sym_r_SQUOTE, ACTIONS 93), (anon_sym_r_DQUOTE_DQUOTE_DQUOTE, ACTIONS 95),
     (anon_sym_r_SQUOTE_SQUOTE_SQUOTE, ACTIONS 97), (anon_sym_LBRACE, ACTIONS 442),
     (anon_sym_LBRACK, ACTIONS 103), (anon_sym_null, ACTIONS 105),
     (anon_sym_LPAREN, ACTIONS 498), (anon_sym_RPAREN, ACTIONS 674),
     (anon_sym_throw, ACTIONS 109), (anon_sym_LT, ACTIONS 111),
     (sym_increment_operator, ACTIONS 113), (sym_minus_operator, ACTIONS 117),
     (anon_sym_BANG, ACTIONS 119), (anon_sym_TILDE, ACTIONS 121), (anon_sym_await, ACTIONS 432),
     (anon_sym_switch, ACTIONS 412), (sym_rethrow_builtin, ACTIONS 151),
     (anon_sym_new, ACTIONS 155), (sym_const_builtin, ACTIONS 478), (anon_sym_this, ACTIONS 159),
     (anon_sym_super, ACTIONS 161), (anon_sym_SLASH_SLASH, ACTIONS 3),
     (anon_sym_SLASH_STAR, ACTIONS 5), (anon_sym_SLASH_SLASH_SLASH, ACTIONS 7),
     (sym__block_comment, ACTIONS 9), (sym__documentation_block_comment, ACTIONS 11)]"

lemma row_ok_195: "table_row_ok 195 ts_parse_table_195"
  by (simp add: row_simps ts_parse_table_195_def)

definition ts_parse_table_196 :: table_row where
  "ts_parse_table_196 = [
     (sym__bool_literal, STATE 989), (sym__numeric_literal, STATE 989),
     (sym__literal, STATE 962), (sym_symbol_literal, STATE 989), (sym_true, STATE 900),
     (sym_false, STATE 900), (sym_string_literal, STATE 989),
     (sym__string_literal_double_quotes, STATE 627),
     (sym__string_literal_single_quotes, STATE 627),
     (sym__string_literal_double_quotes_multiple, STATE 627),
     (sym__string_literal_single_quotes_multiple, STATE 627),
     (sym__raw_string_literal_double_quotes, STATE 627),
     (sym__raw_string_literal_single_quotes, STATE 627),
     (sym__raw_string_literal_double_quotes_multiple, STATE 627),
     (sym__raw_string_literal_single_quotes_multiple, STATE 627), (sym_list_literal, STATE 989),
     (sym_set_or_map_literal, STATE 989), (sym_null_literal, STATE 989),
     (sym_record_literal, STATE 989), (sym__record_literal_no_const, STATE 924),
     (sym__expression, STATE 2781), (sym__real_expression, STATE 660),
     (sym_throw_expression, STATE 908), (sym_rethrow_expression, STATE 908),
     (sym_assignment_expression, STATE 908), (sym_assignable_expression, STATE 1940),
     (sym_function_expression, STATE 962), (sym_if_null_expression, STATE 1477),
     (sym_conditional_expression, STATE 1477), (sym_logical_or_expression, STATE 1477),
     (sym_logical_and_expression, STATE 1477), (sym_equality_expression, STATE 1477),
     (sym_type_cast_expression, STATE 1477), (sym_type_test_expression, STATE 1477),
     (sym_relational_expression, STATE 1477), (sym_bitwise_or_expression, STATE 1477),
     (sym_bitwise_xor_expression, STATE 1477), (sym_bitwise_and_expression, STATE 1477),
     (sym_shift_expression, STATE 1477), (sym_additive_expression, STATE 1477),
     (sym_multiplicative_expression, STATE 1477), (sym__unary_expression, STATE 1121),
     (sym_unary_expression, STATE 1303), (sym__postfix_expression, STATE 1303),
     (sym_postfix_expression, STATE 1301), (sym_prefix_operator, STATE 431),
     (sym_negation_operator, STATE 1450), (sym__exclamation_operator, STATE 1451),
     (sym_tilde_operator, STATE 1385), (sym_await_expression, STATE 1302),
     (sym_new_expression, STATE 962), (sym_const_object_expression, STATE 962),
     (sym__primary, STATE 668), (sym_parenthesized_expression, STATE 962),
     (sym_constructor_invocation, STATE 643), (sym_constructor_tearoff, STATE 962),
     (sym_type_arguments, STATE 3200), (sym_switch_expression, STATE 962),
     (sym__parenthesized_pattern, STATE 3182), (sym_list_pattern, STATE 3182),
     (sym_map_pattern, STATE 3182), (sym_record_pattern, STATE 3182),
     (sym_object_pattern, STATE 3182), (sym__outer_pattern, STATE 3410),
     (sym_pattern_assignment, STATE 908), (sym_type_parameters, STATE 2932),
     (sym__type_name, STATE 2661), (sym__formal_parameter_part, STATE 2339),
     (sym_formal_parameter_list, STATE 2020), (sym__strict_formal_parameter_list, STATE 2016),
     (sym__new_builtin, STATE 2079), (sym_this, STATE 962), (sym_super, STATE 1337),
     (sym_comment, STATE 196), (sym_documentation_comment, STATE 196),
     (aux_sym_string_literal_repeat1, STATE 474), (sym_identifier, ACTIONS 494),
     (anon_sym_POUND, ACTIONS 73), (sym_decimal_integer_literal, ACTIONS 75),
     (sym_hex_integer_literal, ACTIONS 77), (sym_decimal_floating_point_literal, ACTIONS 75),
     (anon_sym_true, ACTIONS 79), (anon_sym_false, ACTIONS 81), (anon_sym_DQUOTE, ACTIONS 83),
     (anon_sym_SQUOTE, ACTIONS 85), (anon_sym_DQUOTE_DQUOTE_DQUOTE, ACTIONS 87),
     (anon_sym_SQUOTE_SQUOTE_SQUOTE, ACTIONS 89), (anon_sym_r_DQUOTE, ACTIONS 91),
     (anon_sym_r_SQUOTE, ACTIONS 93), (anon_sym_r_DQUOTE_DQUOTE_DQUOTE, ACTIONS 95),
     (anon_sym_r_SQUOTE_SQUOTE_SQUOTE, ACTIONS 97), (anon_sym_LBRACE, ACTIONS 442),
     (anon_sym_LBRACK, ACTIONS 103), (anon_sym_null, ACTIONS 105),
     (anon_sym_LPAREN, ACTIONS 498), (anon_sym_RPAREN, ACTIONS 676),
     (anon_sym_throw, ACTIONS 109), (anon_sym_LT, ACTIONS 111),
     (sym_increment_operator, ACTIONS 113), (sym_minus_operator, ACTIONS 117),
     (anon_sym_BANG, ACTIONS 119), (anon_sym_TILDE, ACTIONS 121), (anon_sym_await, ACTIONS 432),
     (anon_sym_switch, ACTIONS 412), (sym_rethrow_builtin, ACTIONS 151),
     (anon_sym_new, ACTIONS 155), (sym_const_builtin, ACTIONS 478), (anon_sym_this, ACTIONS 159),
     (anon_sym_super, ACTIONS 161), (anon_sym_SLASH_SLASH, ACTIONS 3),
     (anon_sym_SLASH_STAR, ACTIONS 5), (anon_sym_SLASH_SLASH_SLASH, ACTIONS 7),
     (sym__block_comment, ACTIONS 9), (sym__documentation_block_comment, ACTIONS 11)]"

lemma row_ok_196: "table_row_ok 196 ts_parse_table_196"
  by (simp add: row_simps ts_parse_table_196_def)

definition ts_parse_table_197 :: table_row where
  "ts_parse_table_197 = [
     (sym__bool_literal, STATE 989), (sym__numeric_literal, STATE 989),
     (sym__literal, STATE 962), (sym_symbol_literal, STATE 989), (sym_true, STATE 900),
     (sym_false, STATE 900), (sym_string_literal, STATE 989),
     (sym__string_literal_double_quotes, STATE 627),
     (sym__string_literal_single_quotes, STATE 627),
     (sym__string_literal_double_quotes_multiple, STATE 627),
     (sym__string_literal_single_quotes_multiple, STATE 627),
     (sym__raw_string_literal_double_quotes, STATE 627),
     (sym__raw_string_literal_single_quotes, STATE 627),
     (sym__raw_string_literal_double_quotes_multiple, STATE 627),
     (sym__raw_string_literal_single_quotes_multiple, STATE 627), (sym_list_literal, STATE 989),
     (sym_set_or_map_literal, STATE 989), (sym_null_literal, STATE 989),
     (sym_record_literal, STATE 989), (sym__record_literal_no_const, STATE 924),
     (sym__expression, STATE 2952), (sym__real_expression, STATE 660),
     (sym_throw_expression, STATE 908), (sym_rethrow_expression, STATE 908),
     (sym_assignment_expression, STATE 908), (sym_assignable_expression, STATE 1940),
     (sym_function_expression, STATE 962), (sym_if_null_expression, STATE 1477),
     (sym_conditional_expression, STATE 1477), (sym_logical_or_expression, STATE 1477),
     (sym_logical_and_expression, STATE 1477), (sym_equality_expression, STATE 1477),
     (sym_type_cast_expression, STATE 1477), (sym_type_test_expression, STATE 1477),
     (sym_relational_expression, STATE 1477), (sym_bitwise_or_expression, STATE 1477),
     (sym_bitwise_xor_expression, STATE 1477), (sym_bitwise_and_expression, STATE 1477),
     (sym_shift_expression, STATE 1477), (sym_additive_expression, STATE 1477),
     (sym_multiplicative_expression, STATE 1477), (sym__unary_expression, STATE 1121),
     (sym_unary_expression, STATE 1303), (sym__postfix_expression, STATE 1303),
     (sym_postfix_expression, STATE 1301), (sym_prefix_operator, STATE 431),
     (sym_negation_operator, STATE 1450), (sym__exclamation_operator, STATE 1451),
     (sym_tilde_operator, STATE 1385), (sym_await_expression, STATE 1302),
     (sym_new_expression, STATE 962), (sym_const_object_expression, STATE 962),
     (sym__primary, STATE 668), (sym_parenthesized_expression, STATE 962),
     (sym_constructor_invocation, STATE 643), (sym_constructor_tearoff, STATE 962),
     (sym_type_arguments, STATE 3200), (sym_switch_expression, STATE 962),
     (sym__parenthesized_pattern, STATE 3182), (sym_list_pattern, STATE 3182),
     (sym_map_pattern, STATE 3182), (sym_record_pattern, STATE 3182),
     (sym_object_pattern, STATE 3182), (sym__outer_pattern, STATE 3410),
     (sym_pattern_assignment, STATE 908), (sym_type_parameters, STATE 2932),
     (sym__type_name, STATE 2661), (sym__formal_parameter_part, STATE 2339),
     (sym_formal_parameter_list, STATE 2020), (sym__strict_formal_parameter_list, STATE 2016),
     (sym__new_builtin, STATE 2079), (sym_this, STATE 962), (sym_super, STATE 1337),
     (sym_comment, STATE 197), (sym_documentation_comment, STATE 197),
     (aux_sym_string_literal_repeat1, STATE 474), (sym_identifier, ACTIONS 494),
     (anon_sym_POUND, ACTIONS 73), (sym_decimal_integer_literal, ACTIONS 75),
     (sym_hex_integer_literal, ACTIONS 77), (sym_decimal_floating_point_literal, ACTIONS 75),
     (anon_sym_true, ACTIONS 79), (anon_sym_false, ACTIONS 81), (anon_sym_DQUOTE, ACTIONS 83),
     (anon_sym_SQUOTE, ACTIONS 85), (anon_sym_DQUOTE_DQUOTE_DQUOTE, ACTIONS 87),
     (anon_sym_SQUOTE_SQUOTE_SQUOTE, ACTIONS 89), (anon_sym_r_DQUOTE, ACTIONS 91),
     (anon_sym_r_SQUOTE, ACTIONS 93), (anon_sym_r_DQUOTE_DQUOTE_DQUOTE, ACTIONS 95),
     (anon_sym_r_SQUOTE_SQUOTE_SQUOTE, ACTIONS 97), (anon_sym_LBRACE, ACTIONS 442),
     (anon_sym_LBRACK, ACTIONS 103), (anon_sym_null, ACTIONS 105),
     (anon_sym_LPAREN, ACTIONS 498), (anon_sym_RPAREN, ACTIONS 678),
     (anon_sym_throw, ACTIONS 109), (anon_sym_LT, ACTIONS 111),
     (sym_increment_operator, ACTIONS 113), (sym_minus_operator, ACTIONS 117),
     (anon_sym_BANG, ACTIONS 119), (anon_sym_TILDE, ACTIONS 121), (anon_sym_await, ACTIONS 432),
     (anon_sym_switch, ACTIONS 412), (sym_rethrow_builtin, ACTIONS 151),
     (anon_sym_new, ACTIONS 155), (sym_const_builtin, ACTIONS 478), (anon_sym_this, ACTIONS 159),
     (anon_sym_super, ACTIONS 161), (anon_sym_SLASH_SLASH, ACTIONS 3),
     (anon_sym_SLASH_STAR, ACTIONS 5), (anon_sym_SLASH_SLASH_SLASH, ACTIONS 7),
     (sym__block_comment, ACTIONS 9), (sym__documentation_block_comment, ACTIONS 11)]"

lemma row_ok_197: "table_row_ok 197 ts_parse_table_197"
  by (simp add: row_simps ts_parse_table_197_def)

definition ts_parse_table_198 :: table_row where
  "ts_parse_table_198 = [
     (sym__bool_literal, STATE 989), (sym__numeric_literal, STATE 989),
     (sym__literal, STATE 962), (sym_symbol_literal, STATE 989), (sym_true, STATE 900),
     (sym_false, STATE 900), (sym_string_literal, STATE 989),
     (sym__string_literal_double_quotes, STATE 627),
     (sym__string_literal_single_quotes, STATE 627),
     (sym__string_literal_double_quotes_multiple, STATE 627),
     (sym__string_literal_single_quotes_multiple, STATE 627),
     (sym__raw_string_literal_double_quotes, STATE 627),
     (sym__raw_string_literal_single_quotes, STATE 627),
     (sym__raw_string_literal_double_quotes_multiple, STATE 627),
     (sym__raw_string_literal_single_quotes_multiple, STATE 627), (sym_list_literal, STATE 989),
     (sym_set_or_map_literal, STATE 989), (sym_null_literal, STATE 989),
     (sym_record_literal, STATE 989), (sym__record_literal_no_const, STATE 924),
     (sym__expression, STATE 2858), (sym__real_expression, STATE 660),
     (sym_throw_expression, STATE 908), (sym_rethrow_expression, STATE 908),
     (sym_assignment_expression, STATE 908), (sym_assignable_expression, STATE 1940),
     (sym_function_expression, STATE 962), (sym_if_null_expression, STATE 1477),
     (sym_conditional_expression, STATE 1477), (sym_logical_or_expression, STATE 1477),
     (sym_logical_and_expression, STATE 1477), (sym_equality_expression, STATE 1477),
     (sym_type_cast_expression, STATE 1477), (sym_type_test_expression, STATE 1477),
     (sym_relational_expression, STATE 1477), (sym_bitwise_or_expression, STATE 1477),
     (sym_bitwise_xor_expression, STATE 1477), (sym_bitwise_and_expression, STATE 1477),
     (sym_shift_expression, STATE 1477), (sym_additive_expression, STATE 1477),
     (sym_multiplicative_expression, STATE 1477), (sym__unary_expression, STATE 1121),
     (sym_unary_expression, STATE 1303), (sym__postfix_expression, STATE 1303),
     (sym_postfix_expression, STATE 1301), (sym_prefix_operator, STATE 431),
     (sym_negation_operator, STATE 1450), (sym__exclamation_operator, STATE 1451),
     (sym_tilde_operator, STATE 1385), (sym_await_expression, STATE 1302),
     (sym_new_expression, STATE 962), (sym_const_object_expression, STATE 962),
     (sym__primary, STATE 668), (sym_parenthesized_expression, STATE 962),
     (sym_constructor_invocation, STATE 643), (sym_constructor_tearoff, STATE 962),
     (sym_type_arguments, STATE 3200), (sym_switch_expression, STATE 962),
     (sym__parenthesized_pattern, STATE 3182), (sym_list_pattern, STATE 3182),
     (sym_map_pattern, STATE 3182), (sym_record_pattern, STATE 3182),
     (sym_object_pattern, STATE 3182), (sym__outer_pattern, STATE 3410),
     (sym_pattern_assignment, STATE 908), (sym_type_parameters, STATE 2932),
     (sym__type_name, STATE 2661), (sym__formal_parameter_part, STATE 2339),
     (sym_formal_parameter_list, STATE 2020), (sym__strict_formal_parameter_list, STATE 2016),
     (sym__new_builtin, STATE 2079), (sym_this, STATE 962), (sym_super, STATE 1337),
     (sym_comment, STATE 198), (sym_documentation_comment, STATE 198),
     (aux_sym_string_literal_repeat1, STATE 474), (sym_identifier, ACTIONS 494),
     (anon_sym_POUND, ACTIONS 73), (sym_decimal_integer_literal, ACTIONS 75),
     (sym_hex_integer_literal, ACTIONS 77), (sym_decimal_floating_point_literal, ACTIONS 75),
     (anon_sym_true, ACTIONS 79), (anon_sym_false, ACTIONS 81), (anon_sym_DQUOTE, ACTIONS 83),
     (anon_sym_SQUOTE, ACTIONS 85), (anon_sym_DQUOTE_DQUOTE_DQUOTE, ACTIONS 87),
     (anon_sym_SQUOTE_SQUOTE_SQUOTE, ACTIONS 89), (anon_sym_r_DQUOTE, ACTIONS 91),
     (anon_sym_r_SQUOTE, ACTIONS 93), (anon_sym_r_DQUOTE_DQUOTE_DQUOTE, ACTIONS 95),
     (anon_sym_r_SQUOTE_SQUOTE_SQUOTE, ACTIONS 97), (anon_sym_LBRACE, ACTIONS 442),
     (anon_sym_LBRACK, ACTIONS 103), (anon_sym_null, ACTIONS 105),
     (anon_sym_LPAREN, ACTIONS 498), (anon_sym_RPAREN, ACTIONS 680),
     (anon_sym_throw, ACTIONS 109), (anon_sym_LT, ACTIONS 111),
     (sym_increment_operator, ACTIONS 113), (sym_minus_operator, ACTIONS 117),
     (anon_sym_BANG, ACTIONS 119), (anon_sym_TILDE, ACTIONS 121), (anon_sym_await, ACTIONS 432),
     (anon_sym_switch, ACTIONS 412), (sym_rethrow_builtin, ACTIONS 151),
     (anon_sym_new, ACTIONS 155), (sym_const_builtin, ACTIONS 478), (anon_sym_this, ACTIONS 159),
     (anon_sym_super, ACTIONS 161), (anon_sym_SLASH_SLASH, ACTIONS 3),
     (anon_sym_SLASH_STAR, ACTIONS 5), (anon_sym_SLASH_SLASH_SLASH, ACTIONS 7),
     (sym__block_comment, ACTIONS 9), (sym__documentation_block_comment, ACTIONS 11)]"

lemma row_ok_198: "table_row_ok 198 ts_parse_table_198"
  by (simp add: row_simps ts_parse_table_198_def)

definition ts_parse_table_199 :: table_row where
  "ts_parse_table_199 = [
     (sym__bool_literal, STATE 989), (sym__numeric_literal, STATE 989),
     (sym__literal, STATE 962), (sym_symbol_literal, STATE 989), (sym_true, STATE 900),
     (sym_false, STATE 900), (sym_string_literal, STATE 989),
     (sym__string_literal_double_quotes, STATE 627),
     (sym__string_literal_single_quotes, STATE 627),
     (sym__string_literal_double_quotes_multiple, STATE 627),
     (sym__string_literal_single_quotes_multiple, STATE 627),
     (sym__raw_string_literal_double_quotes, STATE 627),
     (sym__raw_string_literal_single_quotes, STATE 627),
     (sym__raw_string_literal_double_quotes_multiple, STATE 627),
     (sym__raw_string_literal_single_quotes_multiple, STATE 627), (sym_list_literal, STATE 989),
     (sym_set_or_map_literal, STATE 989), (sym_null_literal, STATE 989),
     (sym_record_literal, STATE 989), (sym__record_literal_no_const, STATE 924),
     (sym__expression, STATE 2764), (sym__real_expression, STATE 660),
     (sym_throw_expression, STATE 908), (sym_rethrow_expression, STATE 908),
     (sym_assignment_expression, STATE 908), (sym_assignable_expression, STATE 1940),
     (sym_function_expression, STATE 962), (sym_if_null_expression, STATE 1477),
     (sym_conditional_expression, STATE 1477), (sym_logical_or_expression, STATE 1477),
     (sym_logical_and_expression, STATE 1477), (sym_equality_expression, STATE 1477),
     (sym_type_cast_expression, STATE 1477), (sym_type_test_expression, STATE 1477),
     (sym_relational_expression, STATE 1477), (sym_bitwise_or_expression, STATE 1477),
     (sym_bitwise_xor_expression, STATE 1477), (sym_bitwise_and_expression, STATE 1477),
     (sym_shift_expression, STATE 1477), (sym_additive_expression, STATE 1477),
     (sym_multiplicative_expression, STATE 1477), (sym__unary_expression, STATE 1121),
     (sym_unary_expression, STATE 1303), (sym__postfix_expression, STATE 1303),
     (sym_postfix_expression, STATE 1301), (sym_prefix_operator, STATE 431),
     (sym_negation_operator, STATE 1450), (sym__exclamation_operator, STATE 1451),
     (sym_tilde_operator, STATE 1385), (sym_await_expression, STATE 1302),
     (sym_new_expression, STATE 962), (sym_const_object_expression, STATE 962),
     (sym__primary, STATE 668), (sym_parenthesized_expression, STATE 962),
     (sym_constructor_invocation, STATE 643), (sym_constructor_tearoff, STATE 962),
     (sym_type_arguments, STATE 3200), (sym_switch_expression, STATE 962),
     (sym__parenthesized_pattern, STATE 3182), (sym_list_pattern, STATE 3182),
     (sym_map_pattern, STATE 3182), (sym_record_pattern, STATE 3182),
     (sym_object_pattern, STATE 3182), (sym__outer_pattern, STATE 3410),
     (sym_pattern_assignment, STATE 908), (sym_type_parameters, STATE 2932),
     (sym__type_name, STATE 2661), (sym__formal_parameter_part, STATE 2339),
     (sym_formal_parameter_list, STATE 2020), (sym__strict_formal_parameter_list, STATE 2016),
     (sym__new_builtin, STATE 2079), (sym_this, STATE 962), (sym_super, STATE 1337),
     (sym_comment, STATE 199), (sym_documentation_comment, STATE 199),
     (aux_sym_string_literal_repeat1, STATE 474), (sym_identifier, ACTIONS 494),
     (anon_sym_POUND, ACTIONS 73), (sym_decimal_integer_literal, ACTIONS 75),
     (sym_hex_integer_literal, ACTIONS 77), (sym_decimal_floating_point_literal, ACTIONS 75),
     (anon_sym_true, ACTIONS 79), (anon_sym_false, ACTIONS 81), (anon_sym_DQUOTE, ACTIONS 83),
     (anon_sym_SQUOTE, ACTIONS 85), (anon_sym_DQUOTE_DQUOTE_DQUOTE, ACTIONS 87),
     (anon_sym_SQUOTE_SQUOTE_SQUOTE, ACTIONS 89), (anon_sym_r_DQUOTE, ACTIONS 91),
     (anon_sym_r_SQUOTE, ACTIONS 93), (anon_sym_r_DQUOTE_DQUOTE_DQUOTE, ACTIONS 95),
     (anon_sym_r_SQUOTE_SQUOTE_SQUOTE, ACTIONS 97), (anon_sym_LBRACE, ACTIONS 442),
     (anon_sym_LBRACK, ACTIONS 103), (anon_sym_null, ACTIONS 105),
     (anon_sym_LPAREN, ACTIONS 498), (anon_sym_RPAREN, ACTIONS 682),
     (anon_sym_throw, ACTIONS 109), (anon_sym_LT, ACTIONS 111),
     (sym_increment_operator, ACTIONS 113), (sym_minus_operator, ACTIONS 117),
     (anon_sym_BANG, ACTIONS 119), (anon_sym_TILDE, ACTIONS 121), (anon_sym_await, ACTIONS 432),
     (anon_sym_switch, ACTIONS 412), (sym_rethrow_builtin, ACTIONS 151),
     (anon_sym_new, ACTIONS 155), (sym_const_builtin, ACTIONS 478), (anon_sym_this, ACTIONS 159),
     (anon_sym_super, ACTIONS 161), (anon_sym_SLASH_SLASH, ACTIONS 3),
     (anon_sym_SLASH_STAR, ACTIONS 5), (anon_sym_SLASH_SLASH_SLASH, ACTIONS 7),
     (sym__block_comment, ACTIONS 9), (sym__documentation_block_comment, ACTIONS 11)]"

lemma row_ok_199: "table_row_ok 199 ts_parse_table_199"
  by (simp add: row_simps ts_parse_table_199_def)

definition ts_parse_table_200 :: table_row where
  "ts_parse_table_200 = [
     (sym__bool_literal, STATE 989), (sym__numeric_literal, STATE 989),
     (sym__literal, STATE 962), (sym_symbol_literal, STATE 989), (sym_true, STATE 900),
     (sym_false, STATE 900), (sym_string_literal, STATE 989),
     (sym__string_literal_double_quotes, STATE 627),
     (sym__string_literal_single_quotes, STATE 627),
     (sym__string_literal_double_quotes_multiple, STATE 627),
     (sym__string_literal_single_quotes_multiple, STATE 627),
     (sym__raw_string_literal_double_quotes, STATE 627),
     (sym__raw_string_literal_single_quotes, STATE 627),
     (sym__raw_string_literal_double_quotes_multiple, STATE 627),
     (sym__raw_string_literal_single_quotes_multiple, STATE 627), (sym_list_literal, STATE 989),
     (sym_set_or_map_literal, STATE 989), (sym_null_literal, STATE 989),
     (sym_record_literal, STATE 989), (sym__record_literal_no_const, STATE 924),
     (sym__expression, STATE 2772), (sym__real_expression, STATE 660),
     (sym_throw_expression, STATE 908), (sym_rethrow_expression, STATE 908),
     (sym_assignment_expression, STATE 908), (sym_assignable_expression, STATE 1940),
     (sym_function_expression, STATE 962), (sym_if_null_expression, STATE 1477),
     (sym_conditional_expression, STATE 1477), (sym_logical_or_expression, STATE 1477),
     (sym_logical_and_expression, STATE 1477), (sym_equality_expression, STATE 1477),
     (sym_type_cast_expression, STATE 1477), (sym_type_test_expression, STATE 1477),
     (sym_relational_expression, STATE 1477), (sym_bitwise_or_expression, STATE 1477),
     (sym_bitwise_xor_expression, STATE 1477), (sym_bitwise_and_expression, STATE 1477),
     (sym_shift_expression, STATE 1477), (sym_additive_expression, STATE 1477),
     (sym_multiplicative_expression, STATE 1477), (sym__unary_expression, STATE 1121),
     (sym_unary_expression, STATE 1303), (sym__postfix_expression, STATE 1303),
     (sym_postfix_expression, STATE 1301), (sym_prefix_operator, STATE 431),
     (sym_negation_operator, STATE 1450), (sym__exclamation_operator, STATE 1451),
     (sym_tilde_operator, STATE 1385), (sym_await_expression, STATE 1302),
     (sym_new_expression, STATE 962), (sym_const_object_expression, STATE 962),
     (sym__primary, STATE 668), (sym_parenthesized_expression, STATE 962),
     (sym_constructor_invocation, STATE 643), (sym_constructor_tearoff, STATE 962),
     (sym_type_arguments, STATE 3200), (sym_switch_expression, STATE 962),
     (sym__parenthesized_pattern, STATE 3182), (sym_list_pattern, STATE 3182),
     (sym_map_pattern, STATE 3182), (sym_record_pattern, STATE 3182),
     (sym_object_pattern, STATE 3182), (sym__outer_pattern, STATE 3410),
     (sym_pattern_assignment, STATE 908), (sym_type_parameters, STATE 2932),
     (sym__type_name, STATE 2661), (sym__formal_parameter_part, STATE 2339),
     (sym_formal_parameter_list, STATE 2020), (sym__strict_formal_parameter_list, STATE 2016),
     (sym__new_builtin, STATE 2079), (sym_this, STATE 962), (sym_super, STATE 1337),
     (sym_comment, STATE 200), (sym_documentation_comment, STATE 200),
     (aux_sym_string_literal_repeat1, STATE 474), (sym_identifier, ACTIONS 494),
     (anon_sym_POUND, ACTIONS 73), (sym_decimal_integer_literal, ACTIONS 75),
     (sym_hex_integer_literal, ACTIONS 77), (sym_decimal_floating_point_literal, ACTIONS 75),
     (anon_sym_true, ACTIONS 79), (anon_sym_false, ACTIONS 81), (anon_sym_DQUOTE, ACTIONS 83),
     (anon_sym_SQUOTE, ACTIONS 85), (anon_sym_DQUOTE_DQUOTE_DQUOTE, ACTIONS 87),
     (anon_sym_SQUOTE_SQUOTE_SQUOTE, ACTIONS 89), (anon_sym_r_DQUOTE, ACTIONS 91),
     (anon_sym_r_SQUOTE, ACTIONS 93), (anon_sym_r_DQUOTE_DQUOTE_DQUOTE, ACTIONS 95),
     (anon_sym_r_SQUOTE_SQUOTE_SQUOTE, ACTIONS 97), (anon_sym_LBRACE, ACTIONS 442),
     (anon_sym_LBRACK, ACTIONS 103), (anon_sym_null, ACTIONS 105),
     (anon_sym_LPAREN, ACTIONS 498), (anon_sym_RPAREN, ACTIONS 684),
     (anon_sym_throw, ACTIONS 109), (anon_sym_LT, ACTIONS 111),
     (sym_increment_operator, ACTIONS 113), (sym_minus_operator, ACTIONS 117),
     (anon_sym_BANG, ACTIONS 119), (anon_sym_TILDE, ACTIONS 121), (anon_sym_await, ACTIONS 432),
     (anon_sym_switch, ACTIONS 412), (sym_rethrow_builtin, ACTIONS 151),
     (anon_sym_new, ACTIONS 155), (sym_const_builtin, ACTIONS 478), (anon_sym_this, ACTIONS 159),
     (anon_sym_super, ACTIONS 161), (anon_sym_SLASH_SLASH, ACTIONS 3),
     (anon_sym_SLASH_STAR, ACTIONS 5), (anon_sym_SLASH_SLASH_SLASH, ACTIONS 7),
     (sym__block_comment, ACTIONS 9), (sym__documentation_block_comment, ACTIONS 11)]"

lemma row_ok_200: "table_row_ok 200 ts_parse_table_200"
  by (simp add: row_simps ts_parse_table_200_def)

definition ts_parse_table_201 :: table_row where
  "ts_parse_table_201 = [
     (sym__bool_literal, STATE 989), (sym__numeric_literal, STATE 989),
     (sym__literal, STATE 962), (sym_symbol_literal, STATE 989), (sym_true, STATE 900),
     (sym_false, STATE 900), (sym_string_literal, STATE 989),
     (sym__string_literal_double_quotes, STATE 627),
     (sym__string_literal_single_quotes, STATE 627),
     (sym__string_literal_double_quotes_multiple, STATE 627),
     (sym__string_literal_single_quotes_multiple, STATE 627),
     (sym__raw_string_literal_double_quotes, STATE 627),
     (sym__raw_string_literal_single_quotes, STATE 627),
     (sym__raw_string_literal_double_quotes_multiple, STATE 627),
     (sym__raw_string_literal_single_quotes_multiple, STATE 627), (sym_list_literal, STATE 989),
     (sym_set_or_map_literal, STATE 989), (sym_null_literal, STATE 989),
     (sym_record_literal, STATE 989), (sym__record_literal_no_const, STATE 924),
     (sym__expression, STATE 1225), (sym__real_expression, STATE 510),
     (sym_throw_expression, STATE 1267), (sym_rethrow_expression, STATE 1267),
     (sym_assignment_expression, STATE 1267), (sym_assignable_expression, STATE 1956),
     (sym_function_expression, STATE 962), (sym_if_null_expression, STATE 996),
     (sym_conditional_expression, STATE 996), (sym_logical_or_expression, STATE 996),
     (sym_logical_and_expression, STATE 996), (sym_equality_expression, STATE 996),
     (sym_type_cast_expression, STATE 996), (sym_type_test_expression, STATE 996),
     (sym_relational_expression, STATE 996), (sym_bitwise_or_expression, STATE 996),
     (sym_bitwise_xor_expression, STATE 996), (sym_bitwise_and_expression, STATE 996),
     (sym_shift_expression, STATE 996), (sym_additive_expression, STATE 996),
     (sym_multiplicative_expression, STATE 996), (sym__unary_expression, STATE 787),
     (sym_unary_expression, STATE 994), (sym__postfix_expression, STATE 994),
     (sym_postfix_expression, STATE 993), (sym_prefix_operator, STATE 421),
     (sym_negation_operator, STATE 1450), (sym__exclamation_operator, STATE 1451),
     (sym_tilde_operator, STATE 1357), (sym_await_expression, STATE 991),
     (sym_new_expression, STATE 962), (sym_const_object_expression, STATE 962),
     (sym__primary, STATE 648), (sym_parenthesized_expression, STATE 962),
     (sym_constructor_invocation, STATE 643), (sym_constructor_tearoff, STATE 962),
     (sym_type_arguments, STATE 3200), (sym_switch_expression, STATE 962),
     (sym__parenthesized_pattern, STATE 3182), (sym_list_pattern, STATE 3182),
     (sym_map_pattern, STATE 3182), (sym_record_pattern, STATE 3182),
     (sym_object_pattern, STATE 3182), (sym__outer_pattern, STATE 3409),
     (sym_pattern_assignment, STATE 1267), (sym_type_parameters, STATE 2932),
     (sym__type_name, STATE 2661), (sym__formal_parameter_part, STATE 2339),
     (sym_formal_parameter_list, STATE 2020), (sym__strict_formal_parameter_list, STATE 2016),
     (sym__new_builtin, STATE 2079), (sym_this, STATE 962), (sym_super, STATE 1338),
     (sym_comment, STATE 201), (sym_documentation_comment, STATE 201),
     (aux_sym_string_literal_repeat1, STATE 474), (sym_identifier, ACTIONS 494),
     (anon_sym_POUND, ACTIONS 73), (sym_decimal_integer_literal, ACTIONS 75),
     (sym_hex_integer_literal, ACTIONS 77), (sym_decimal_floating_point_literal, ACTIONS 75),
     (anon_sym_true, ACTIONS 79), (anon_sym_false, ACTIONS 81), (anon_sym_DQUOTE, ACTIONS 83),
     (anon_sym_SQUOTE, ACTIONS 85), (anon_sym_DQUOTE_DQUOTE_DQUOTE, ACTIONS 87),
     (anon_sym_SQUOTE_SQUOTE_SQUOTE, ACTIONS 89), (anon_sym_r_DQUOTE, ACTIONS 91),
     (anon_sym_r_SQUOTE, ACTIONS 93), (anon_sym_r_DQUOTE_DQUOTE_DQUOTE, ACTIONS 95),
     (anon_sym_r_SQUOTE_SQUOTE_SQUOTE, ACTIONS 97), (anon_sym_LBRACE, ACTIONS 442),
     (anon_sym_LBRACK, ACTIONS 103), (anon_sym_null, ACTIONS 105),
     (anon_sym_LPAREN, ACTIONS 498), (anon_sym_throw, ACTIONS 686), (anon_sym_LT, ACTIONS 111),
     (sym_increment_operator, ACTIONS 688), (sym_minus_operator, ACTIONS 690),
     (anon_sym_BANG, ACTIONS 119), (anon_sym_TILDE, ACTIONS 121), (anon_sym_await, ACTIONS 692),
     (anon_sym_switch, ACTIONS 412), (sym_rethrow_builtin, ACTIONS 694),
     (anon_sym_new, ACTIONS 155), (sym_const_builtin, ACTIONS 478), (anon_sym_this, ACTIONS 159),
     (anon_sym_super, ACTIONS 161), (anon_sym_SLASH_SLASH, ACTIONS 3),
     (anon_sym_SLASH_STAR, ACTIONS 5), (anon_sym_SLASH_SLASH_SLASH, ACTIONS 7),
     (sym__block_comment, ACTIONS 9), (sym__documentation_block_comment, ACTIONS 11)]"

lemma row_ok_201: "table_row_ok 201 ts_parse_table_201"
  by (simp add: row_simps ts_parse_table_201_def)

definition ts_parse_table_202 :: table_row where
  "ts_parse_table_202 = [
     (sym__bool_literal, STATE 989), (sym__numeric_literal, STATE 989),
     (sym__literal, STATE 962), (sym_symbol_literal, STATE 989), (sym_true, STATE 900),
     (sym_false, STATE 900), (sym_string_literal, STATE 989),
     (sym__string_literal_double_quotes, STATE 627),
     (sym__string_literal_single_quotes, STATE 627),
     (sym__string_literal_double_quotes_multiple, STATE 627),
     (sym__string_literal_single_quotes_multiple, STATE 627),
     (sym__raw_string_literal_double_quotes, STATE 627),
     (sym__raw_string_literal_single_quotes, STATE 627),
     (sym__raw_string_literal_double_quotes_multiple, STATE 627),
     (sym__raw_string_literal_single_quotes_multiple, STATE 627), (sym_list_literal, STATE 989),
     (sym_set_or_map_literal, STATE 989), (sym_null_literal, STATE 989),
     (sym_record_literal, STATE 989), (sym__record_literal_no_const, STATE 924),
     (sym__expression, STATE 3449), (sym__real_expression, STATE 660),
     (sym_throw_expression, STATE 908), (sym_rethrow_expression, STATE 908),
     (sym_assignment_expression, STATE 908), (sym_assignable_expression, STATE 1940),
     (sym_function_expression, STATE 962), (sym_if_null_expression, STATE 1477),
     (sym_conditional_expression, STATE 1477), (sym_logical_or_expression, STATE 1477),
     (sym_logical_and_expression, STATE 1477), (sym_equality_expression, STATE 1477),
     (sym_type_cast_expression, STATE 1477), (sym_type_test_expression, STATE 1477),
     (sym_relational_expression, STATE 1477), (sym_bitwise_or_expression, STATE 1477),
     (sym_bitwise_xor_expression, STATE 1477), (sym_bitwise_and_expression, STATE 1477),
     (sym_shift_expression, STATE 1477), (sym_additive_expression, STATE 1477),
     (sym_multiplicative_expression, STATE 1477), (sym__unary_expression, STATE 1121),
     (sym_unary_expression, STATE 1303), (sym__postfix_expression, STATE 1303),
     (sym_postfix_expression, STATE 1301), (sym_prefix_operator, STATE 431),
     (sym_negation_operator, STATE 1450), (sym__exclamation_operator, STATE 1451),
     (sym_tilde_operator, STATE 1385), (sym_await_expression, STATE 1302),
     (sym_new_expression, STATE 962), (sym_const_object_expression, STATE 962),
     (sym__primary, STATE 668), (sym_parenthesized_expression, STATE 962),
     (sym_constructor_invocation, STATE 643), (sym_constructor_tearoff, STATE 962),
     (sym_type_arguments, STATE 3200), (sym_switch_expression, STATE 962),
     (sym__parenthesized_pattern, STATE 3182), (sym_list_pattern, STATE 3182),
     (sym_map_pattern, STATE 3182), (sym_record_pattern, STATE 3182),
     (sym_object_pattern, STATE 3182), (sym__outer_pattern, STATE 3410),
     (sym_pattern_assignment, STATE 908), (sym_type_parameters, STATE 2932),
     (sym__type_name, STATE 2661), (sym__formal_parameter_part, STATE 2339),
     (sym_formal_parameter_list, STATE 2020), (sym__strict_formal_parameter_list, STATE 2016),
     (sym__new_builtin, STATE 2079), (sym_this, STATE 962), (sym_super, STATE 1337),
     (sym_comment, STATE 202), (sym_documentation_comment, STATE 202),
     (aux_sym_string_literal_repeat1, STATE 474), (sym_identifier, ACTIONS 494),
     (anon_sym_POUND, ACTIONS 73), (sym_decimal_integer_literal, ACTIONS 75),
     (sym_hex_integer_literal, ACTIONS 77), (sym_decimal_floating_point_literal, ACTIONS 75),
     (anon_sym_true, ACTIONS 79), (anon_sym_false, ACTIONS 81), (anon_sym_DQUOTE, ACTIONS 83),
     (anon_sym_SQUOTE, ACTIONS 85), (anon_sym_DQUOTE_DQUOTE_DQUOTE, ACTIONS 87),
     (anon_sym_SQUOTE_SQUOTE_SQUOTE, ACTIONS 89), (anon_sym_r_DQUOTE, ACTIONS 91),
     (anon_sym_r_SQUOTE, ACTIONS 93), (anon_sym_r_DQUOTE_DQUOTE_DQUOTE, ACTIONS 95),
     (anon_sym_r_SQUOTE_SQUOTE_SQUOTE, ACTIONS 97), (anon_sym_LBRACE, ACTIONS 442),
     (anon_sym_LBRACK, ACTIONS 103), (anon_sym_null, ACTIONS 105),
     (anon_sym_LPAREN, ACTIONS 498), (anon_sym_throw, ACTIONS 109), (anon_sym_LT, ACTIONS 111),
     (sym_increment_operator, ACTIONS 113), (sym_minus_operator, ACTIONS 117),
     (anon_sym_BANG, ACTIONS 119), (anon_sym_TILDE, ACTIONS 121), (anon_sym_await, ACTIONS 432),
     (anon_sym_switch, ACTIONS 412), (sym_rethrow_builtin, ACTIONS 151),
     (anon_sym_new, ACTIONS 155), (sym_const_builtin, ACTIONS 478), (anon_sym_this, ACTIONS 159),
     (anon_sym_super, ACTIONS 161), (anon_sym_SLASH_SLASH, ACTIONS 3),
     (anon_sym_SLASH_STAR, ACTIONS 5), (anon_sym_SLASH_SLASH_SLASH, ACTIONS 7),
     (sym__block_comment, ACTIONS 9), (sym__documentation_block_comment, ACTIONS 11)]"

lemma row_ok_202: "table_row_ok 202 ts_parse_table_202"
  by (simp add: row_simps ts_parse_table_202_def)

definition ts_parse_table_203 :: table_row where
  "ts_parse_table_203 = [
     (sym__bool_literal, STATE 1115), (sym__numeric_literal, STATE 1115),
     (sym__literal, STATE 1135), (sym_symbol_literal, STATE 1115), (sym_true, STATE 1165),
     (sym_false, STATE 1165), (sym_string_literal, STATE 1115),
     (sym__string_literal_double_quotes, STATE 729),
     (sym__string_literal_single_quotes, STATE 729),
     (sym__string_literal_double_quotes_multiple, STATE 729),
     (sym__string_literal_single_quotes_multiple, STATE 729),
     (sym__raw_string_literal_double_quotes, STATE 729),
     (sym__raw_string_literal_single_quotes, STATE 729),
     (sym__raw_string_literal_double_quotes_multiple, STATE 729),
     (sym__raw_string_literal_single_quotes_multiple, STATE 729), (sym_list_literal, STATE 1115),
     (sym_set_or_map_literal, STATE 1115), (sym_null_literal, STATE 1115),
     (sym_record_literal, STATE 1115), (sym__record_literal_no_const, STATE 1187),
     (sym__expression, STATE 1161), (sym__real_expression, STATE 508),
     (sym_throw_expression, STATE 1186), (sym_rethrow_expression, STATE 1186),
     (sym_assignment_expression, STATE 1186), (sym_assignable_expression, STATE 1932),
     (sym_function_expression, STATE 1135), (sym_if_null_expression, STATE 1117),
     (sym_conditional_expression, STATE 1117), (sym_logical_or_expression, STATE 1117),
     (sym_logical_and_expression, STATE 1117), (sym_equality_expression, STATE 1117),
     (sym_type_cast_expression, STATE 1117), (sym_type_test_expression, STATE 1117),
     (sym_relational_expression, STATE 1117), (sym_bitwise_or_expression, STATE 1117),
     (sym_bitwise_xor_expression, STATE 1117), (sym_bitwise_and_expression, STATE 1117),
     (sym_shift_expression, STATE 1117), (sym_additive_expression, STATE 1117),
     (sym_multiplicative_expression, STATE 1117), (sym__unary_expression, STATE 902),
     (sym_unary_expression, STATE 1114), (sym__postfix_expression, STATE 1114),
     (sym_postfix_expression, STATE 1098), (sym_prefix_operator, STATE 417),
     (sym_negation_operator, STATE 1450), (sym__exclamation_operator, STATE 1451),
     (sym_tilde_operator, STATE 1359), (sym_await_expression, STATE 1093),
     (sym_new_expression, STATE 1135), (sym_const_object_expression, STATE 1135),
     (sym__primary, STATE 690), (sym_parenthesized_expression, STATE 1135),
     (sym_constructor_invocation, STATE 699), (sym_constructor_tearoff, STATE 1135),
     (sym_type_arguments, STATE 3109), (sym_switch_expression, STATE 1135),
     (sym__parenthesized_pattern, STATE 3182), (sym_list_pattern, STATE 3182),
     (sym_map_pattern, STATE 3182), (sym_record_pattern, STATE 3182),
     (sym_object_pattern, STATE 3182), (sym__outer_pattern, STATE 3287),
     (sym_pattern_assignment, STATE 1186), (sym_type_parameters, STATE 2932),
     (sym__type_name, STATE 2663), (sym__formal_parameter_part, STATE 2358),
     (sym_formal_parameter_list, STATE 2020), (sym__strict_formal_parameter_list, STATE 2016),
     (sym__new_builtin, STATE 2074), (sym_this, STATE 1135), (sym_super, STATE 1344),
     (sym_comment, STATE 203), (sym_documentation_comment, STATE 203),
     (aux_sym_string_literal_repeat1, STATE 595), (sym_identifier, ACTIONS 696),
     (anon_sym_POUND, ACTIONS 698), (sym_decimal_integer_literal, ACTIONS 700),
     (sym_hex_integer_literal, ACTIONS 702), (sym_decimal_floating_point_literal, ACTIONS 700),
     (anon_sym_true, ACTIONS 704), (anon_sym_false, ACTIONS 706), (anon_sym_DQUOTE, ACTIONS 708),
     (anon_sym_SQUOTE, ACTIONS 710), (anon_sym_DQUOTE_DQUOTE_DQUOTE, ACTIONS 712),
     (anon_sym_SQUOTE_SQUOTE_SQUOTE, ACTIONS 714), (anon_sym_r_DQUOTE, ACTIONS 716),
     (anon_sym_r_SQUOTE, ACTIONS 718), (anon_sym_r_DQUOTE_DQUOTE_DQUOTE, ACTIONS 720),
     (anon_sym_r_SQUOTE_SQUOTE_SQUOTE, ACTIONS 722), (anon_sym_LBRACE, ACTIONS 724),
     (anon_sym_LBRACK, ACTIONS 726), (anon_sym_null, ACTIONS 728),
     (anon_sym_LPAREN, ACTIONS 730), (anon_sym_throw, ACTIONS 732), (anon_sym_LT, ACTIONS 111),
     (sym_increment_operator, ACTIONS 734), (sym_minus_operator, ACTIONS 736),
     (anon_sym_BANG, ACTIONS 119), (anon_sym_TILDE, ACTIONS 121), (anon_sym_await, ACTIONS 738),
     (anon_sym_switch, ACTIONS 740), (sym_rethrow_builtin, ACTIONS 742),
     (anon_sym_new, ACTIONS 155), (sym_const_builtin, ACTIONS 744), (anon_sym_this, ACTIONS 746),
     (anon_sym_super, ACTIONS 161), (anon_sym_SLASH_SLASH, ACTIONS 3),
     (anon_sym_SLASH_STAR, ACTIONS 5), (anon_sym_SLASH_SLASH_SLASH, ACTIONS 7),
     (sym__block_comment, ACTIONS 9), (sym__documentation_block_comment, ACTIONS 11)]"

lemma row_ok_203: "table_row_ok 203 ts_parse_table_203"
  by (simp add: row_simps ts_parse_table_203_def)

definition ts_parse_table_rows_4 :: "(TSStateId \<times> table_row) list" where
  "ts_parse_table_rows_4 = [
     (145, ts_parse_table_145), (146, ts_parse_table_146), (147, ts_parse_table_147),
     (148, ts_parse_table_148), (149, ts_parse_table_149), (150, ts_parse_table_150),
     (151, ts_parse_table_151), (152, ts_parse_table_152), (153, ts_parse_table_153),
     (154, ts_parse_table_154), (155, ts_parse_table_155), (156, ts_parse_table_156),
     (157, ts_parse_table_157), (158, ts_parse_table_158), (159, ts_parse_table_159),
     (160, ts_parse_table_160), (161, ts_parse_table_161), (162, ts_parse_table_162),
     (163, ts_parse_table_163), (164, ts_parse_table_164), (165, ts_parse_table_165),
     (166, ts_parse_table_166), (167, ts_parse_table_167), (168, ts_parse_table_168),
     (169, ts_parse_table_169), (170, ts_parse_table_170), (171, ts_parse_table_171),
     (172, ts_parse_table_172), (173, ts_parse_table_173), (174, ts_parse_table_174),
     (175, ts_parse_table_175), (176, ts_parse_table_176), (177, ts_parse_table_177),
     (178, ts_parse_table_178), (179, ts_parse_table_179), (180, ts_parse_table_180),
     (181, ts_parse_table_181), (182, ts_parse_table_182), (183, ts_parse_table_183),
     (184, ts_parse_table_184), (185, ts_parse_table_185), (186, ts_parse_table_186),
     (187, ts_parse_table_187), (188, ts_parse_table_188), (189, ts_parse_table_189),
     (190, ts_parse_table_190), (191, ts_parse_table_191), (192, ts_parse_table_192),
     (193, ts_parse_table_193), (194, ts_parse_table_194), (195, ts_parse_table_195),
     (196, ts_parse_table_196), (197, ts_parse_table_197), (198, ts_parse_table_198),
     (199, ts_parse_table_199), (200, ts_parse_table_200), (201, ts_parse_table_201),
     (202, ts_parse_table_202), (203, ts_parse_table_203)]"

lemma rows_ok_4: "list_all (\<lambda>(s, es). table_row_ok s es) ts_parse_table_rows_4"
  by (simp add: ts_parse_table_rows_4_def
    row_ok_145 row_ok_146 row_ok_147 row_ok_148 row_ok_149 row_ok_150 row_ok_151 row_ok_152 row_ok_153
    row_ok_154 row_ok_155 row_ok_156 row_ok_157 row_ok_158 row_ok_159 row_ok_160 row_ok_161 row_ok_162
    row_ok_163 row_ok_164 row_ok_165 row_ok_166 row_ok_167 row_ok_168 row_ok_169 row_ok_170 row_ok_171
    row_ok_172 row_ok_173 row_ok_174 row_ok_175 row_ok_176 row_ok_177 row_ok_178 row_ok_179 row_ok_180
    row_ok_181 row_ok_182 row_ok_183 row_ok_184 row_ok_185 row_ok_186 row_ok_187 row_ok_188 row_ok_189
    row_ok_190 row_ok_191 row_ok_192 row_ok_193 row_ok_194 row_ok_195 row_ok_196 row_ok_197 row_ok_198
    row_ok_199 row_ok_200 row_ok_201 row_ok_202 row_ok_203)

lemma row_keys_4: "map fst ts_parse_table_rows_4 = [145..<204]"
  by (simp add: ts_parse_table_rows_4_def upt_from_0)

end
