(* ===== verification/Dart_Rows_5.thy ===== *)
theory Dart_Rows_5
  imports Dart_Items
begin

text \<open>
  The rows 204 to 264 of \<^verbatim>\<open>ts_parse_table\<close>, each with the check of its entries.
\<close>

definition ts_parse_table_204 :: table_row where
  "ts_parse_table_204 = [
     (sym__bool_literal, STATE 1115), (sym__numeric_literal, STATE 1115),
     (sym__literal, STATE 1135), (sym_symbol_literal, STATE 1115), (sym_true, STATE 1165),
     (sym_false, STATE 1165), (sym_string_literal, STATE 1115),
     (sym__string_literal_double_quotes, STATE 729),
     (sym__string_literal_single_quotes, STATE 729),
     (sym__string_literal_double_quotes_multiple, STATE 729),
     (sym__string_literal_single_quotes_multiple, STATE 729),
     (sym__raw_string_literal_double_quotes, STATE 729),
     (sym__raw_string_literal_single_quotes, STATE 729),
     (sym__raw_string_literal_double_quotes_multiple, STATE 729),
     (sym__raw_string_literal_single_quotes_multiple, STATE 729), (sym_list_literal, STATE 1115),
     (sym_set_or_map_literal, STATE 1115), (sym_null_literal, STATE 1115),
     (sym_record_literal, STATE 1115), (sym__record_literal_no_const, STATE 1187),
     (sym__expression, STATE 1142), (sym__real_expression, STATE 508),
     (sym_throw_expression, STATE 1186), (sym_rethrow_expression, STATE 1186),
     (sym_assignment_expression, STATE 1186), (sym_assignable_expression, STATE 1932),
     (sym_function_expression, STATE 1135), (sym_if_null_expression, STATE 1117),
     (sym_conditional_expression, STATE 1117), (sym_logical_or_expression, STATE 1117),
     (sym_logical_and_expression, STATE 1117), (sym_equality_expression, STATE 1117),
     (sym_type_cast_expression, STATE 1117), (sym_type_test_expression, STATE 1117),
     (sym_relational_expression, STATE 1117), (sym_bitwise_or_expression, STATE 1117),
     (sym_bitwise_xor_expression, STATE 1117), (sym_bitwise_and_expression, STATE 1117),
     (sym_shift_expression, STATE 1117), (sym_additive_expression, STATE 1117),
     (sym_multiplicative_expression, STATE 1117), (sym__unary_expression, STATE 902),
     (sym_unary_expression, STATE 1114), (sym__postfix_expression, STATE 1114),
     (sym_postfix_expression, STATE 1098), (sym_prefix_operator, STATE 417),
     (sym_negation_operator, STATE 1450), (sym__exclamation_operator, STATE 1451),
     (sym_tilde_operator, STATE 1359), (sym_await_expression, STATE 1093),
     (sym_new_expression, STATE 1135), (sym_const_object_expression, STATE 1135),
     (sym__primary, STATE 690), (sym_parenthesized_expression, STATE 1135),
     (sym_constructor_invocation, STATE 699), (sym_constructor_tearoff, STATE 1135),
     (sym_type_arguments, STATE 3109), (sym_switch_expression, STATE 1135),
     (sym__parenthesized_pattern, STATE 3182), (sym_list_pattern, STATE 3182),
     (sym_map_pattern, STATE 3182), (sym_record_pattern, STATE 3182),
     (sym_object_pattern, STATE 3182), (sym__outer_pattern, STATE 3287),
     (sym_pattern_assignment, STATE 1186), (sym_type_parameters, STATE 2932),
     (sym__type_name, STATE 2663), (sym__formal_parameter_part, STATE 2358),
     (sym_formal_parameter_list, STATE 2020), (sym__strict_formal_parameter_list, STATE 2016),
     (sym__new_builtin, STATE 2074), (sym_this, STATE 1135), (sym_super, STATE 1344),
     (sym_comment, STATE 204), (sym_documentation_comment, STATE 204),
     (aux_sym_string_literal_repeat1, STATE 595), (sym_identifier, ACTIONS 696),
     (anon_sym_POUND, ACTIONS 698), (sym_decimal_integer_literal, ACTIONS 700),
     (sym_hex_integer_literal, ACTIONS 702), (sym_decimal_floating_point_literal, ACTIONS 700),
     (anon_sym_true, ACTIONS 704), (anon_sym_false, ACTIONS 706), (anon_sym_DQUOTE, ACTIONS 708),
     (anon_sym_SQUOTE, ACTIONS 710), (anon_sym_DQUOTE_DQUOTE_DQUOTE, ACTIONS 712),
     (anon_sym_SQUOTE_SQUOTE_SQUOTE, ACTIONS 714), (anon_sym_r_DQUOTE, ACTIONS 716),
     (anon_sym_r_SQUOTE, ACTIONS 718), (anon_sym_r_DQUOTE_DQUOTE_DQUOTE, ACTIONS 720),
     (anon_sym_r_SQUOTE_SQUOTE_SQUOTE, ACTIONS 722), (anon_sym_LBRACE, ACTIONS 724),
     (anon_sym_LBRACK, ACTIONS 726), (anon_sym_null, ACTIONS 728),
     (anon_sym_LPAREN, ACTIONS 730), (anon_sym_throw, ACTIONS 732), (anon_sym_LT, ACTIONS 111),
     (sym_increment_operator, ACTIONS 734), (sym_minus_operator, ACTIONS 736),
     (anon_sym_BANG, ACTIONS 119), (anon_sym_TILDE, ACTIONS 121), (anon_sym_await, ACTIONS 738),
     (anon_sym_switch, ACTIONS 740), (sym_rethrow_builtin, ACTIONS 742),
     (anon_sym_new, ACTIONS 155), (sym_const_builtin, ACTIONS 744), (anon_sym_this, ACTIONS 746),
     (anon_sym_super, ACTIONS 161), (anon_sym_SLASH_SLASH, ACTIONS 3),
     (anon_sym_SLASH_STAR, ACTIONS 5), (anon_sym_SLASH_SLASH_SLASH, ACTIONS 7),
     (sym__block_comment, ACTIONS 9), (sym__documentation_block_comment, ACTIONS 11)]"

lemma row_ok_204: "table_row_ok 204 ts_parse_table_204"
  by (simp add: row_simps ts_parse_table_204_def)

definition ts_parse_table_205 :: table_row where
  "ts_parse_table_205 = [
     (sym__bool_literal, STATE 989), (sym__numeric_literal, STATE 989),
     (sym__literal, STATE 962), (sym_symbol_literal, STATE 989), (sym_true, STATE 900),
     (sym_false, STATE 900), (sym_string_literal, STATE 989),
     (sym__string_literal_double_quotes, STATE 627),
     (sym__string_literal_single_quotes, STATE 627),
     (sym__string_literal_double_quotes_multiple, STATE 627),
     (sym__string_literal_single_quotes_multiple, STATE 627),
     (sym__raw_string_literal_double_quotes, STATE 627),
     (sym__raw_string_literal_single_quotes, STATE 627),
     (sym__raw_string_literal_double_quotes_multiple, STATE 627),
     (sym__raw_string_literal_single_quotes_multiple, STATE 627), (sym_list_literal, STATE 989),
     (sym_set_or_map_literal, STATE 989), (sym_null_literal, STATE 989),
     (sym_record_literal, STATE 989), (sym__record_literal_no_const, STATE 924),
     (sym__expression, STATE 1226), (sym__real_expression, STATE 510),
     (sym_throw_expression, STATE 1267), (sym_rethrow_expression, STATE 1267),
     (sym_assignment_expression, STATE 1267), (sym_assignable_expression, STATE 1956),
     (sym_function_expression, STATE 962), (sym_if_null_expression, STATE 996),
     (sym_conditional_expression, STATE 996), (sym_logical_or_expression, STATE 996),
     (sym_logical_and_expression, STATE 996), (sym_equality_expression, STATE 996),
     (sym_type_cast_expression, STATE 996), (sym_type_test_expression, STATE 996),
     (sym_relational_expression, STATE 996), (sym_bitwise_or_expression, STATE 996),
     (sym_bitwise_xor_expression, STATE 996), (sym_bitwise_and_expression, STATE 996),
     (sym_shift_expression, STATE 996), (sym_additive_expression, STATE 996),
     (sym_multiplicative_expression, STATE 996), (sym__unary_expression, STATE 787),
     (sym_unary_expression, STATE 994), (sym__postfix_expression, STATE 994),
     (sym_postfix_expression, STATE 993), (sym_prefix_operator, STATE 421),
     (sym_negation_operator, STATE 1450), (sym__exclamation_operator, STATE 1451),
     (sym_tilde_operator, STATE 1357), (sym_await_expression, STATE 991),
     (sym_new_expression, STATE 962), (sym_const_object_expression, STATE 962),
     (sym__primary, STATE 648), (sym_parenthesized_expression, STATE 962),
     (sym_constructor_invocation, STATE 643), (sym_constructor_tearoff, STATE 962),
     (sym_type_arguments, STATE 3200), (sym_switch_expression, STATE 962),
     (sym__parenthesized_pattern, STATE 3182), (sym_list_pattern, STATE 3182),
     (sym_map_pattern, STATE 3182), (sym_record_pattern, STATE 3182),
     (sym_object_pattern, STATE 3182), (sym__outer_pattern, STATE 3409),
     (sym_pattern_assignment, STATE 1267), (sym_type_parameters, STATE 2932),
     (sym__type_name, STATE 2661), (sym__formal_parameter_part, STATE 2339),
     (sym_formal_parameter_list, STATE 2020), (sym__strict_formal_parameter_list, STATE 2016),
     (sym__new_builtin, STATE 2079), (sym_this, STATE 962), (sym_super, STATE 1338),
     (sym_comment, STATE 205), (sym_documentation_comment, STATE 205),
     (aux_sym_string_literal_repeat1, STATE 474), (sym_identifier, ACTIONS 494),
     (anon_sym_POUND, ACTIONS 73), (sym_decimal_integer_literal, ACTIONS 75),
     (sym_hex_integer_literal, ACTIONS 77), (sym_decimal_floating_point_literal, ACTIONS 75),
     (anon_sym_true, ACTIONS 79), (anon_sym_false, ACTIONS 81), (anon_sym_DQUOTE, ACTIONS 83),
     (anon_sym_SQUOTE, ACTIONS 85), (anon_sym_DQUOTE_DQUOTE_DQUOTE, ACTIONS 87),
     (anon_sym_SQUOTE_SQUOTE_SQUOTE, ACTIONS 89), (anon_sym_r_DQUOTE, ACTIONS 91),
     (anon_sym_r_SQUOTE, ACTIONS 93), (anon_sym_r_DQUOTE_DQUOTE_DQUOTE, ACTIONS 95),
     (anon_sym_r_SQUOTE_SQUOTE_SQUOTE, ACTIONS 97), (anon_sym_LBRACE, ACTIONS 442),
     (anon_sym_LBRACK, ACTIONS 103), (anon_sym_null, ACTIONS 105),
     (anon_sym_LPAREN, ACTIONS 498), (anon_sym_throw, ACTIONS 686), (anon_sym_LT, ACTIONS 111),
     (sym_increment_operator, ACTIONS 688), (sym_minus_operator, ACTIONS 690),
     (anon_sym_BANG, ACTIONS 119), (anon_sym_TILDE, ACTIONS 121), (anon_sym_await, ACTIONS 692),
     (anon_sym_switch, ACTIONS 412), (sym_rethrow_builtin, ACTIONS 694),
     (anon_sym_new, ACTIONS 155), (sym_const_builtin, ACTIONS 478), (anon_sym_this, ACTIONS 159),
     (anon_sym_super, ACTIONS 161), (anon_sym_SLASH_SLASH, ACTIONS 3),
     (anon_sym_SLASH_STAR, ACTIONS 5), (anon_sym_SLASH_SLASH_SLASH, ACTIONS 7),
     (sym__block_comment, ACTIONS 9), (sym__documentation_block_comment, ACTIONS 11)]"

lemma row_ok_205: "table_row_ok 205 ts_parse_table_205"
  by (simp add: row_simps ts_parse_table_205_def)

definition ts_parse_table_206 :: table_row where
  "ts_parse_table_206 = [
     (sym__bool_literal, STATE 989), (sym__numeric_literal, STATE 989),
     (sym__literal, STATE 962), (sym_symbol_literal, STATE 989), (sym_true, STATE 900),
     (sym_false, STATE 900), (sym_string_literal, STATE 989),
     (sym__string_literal_double_quotes, STATE 627),
     (sym__string_literal_single_quotes, STATE 627),
     (sym__string_literal_double_quotes_multiple, STATE 627),
     (sym__string_literal_single_quotes_multiple, STATE 627),
     (sym__raw_string_literal_double_quotes, STATE 627),
     (sym__raw_string_literal_single_quotes, STATE 627),
     (sym__raw_string_literal_double_quotes_multiple, STATE 627),
     (sym__raw_string_literal_single_quotes_multiple, STATE 627), (sym_list_literal, STATE 989),
     (sym_set_or_map_literal, STATE 989), (sym_null_literal, STATE 989),
     (sym_record_literal, STATE 989), (sym__record_literal_no_const, STATE 924),
     (sym__expression, STATE 3132), (sym__real_expression, STATE 660),
     (sym_throw_expression, STATE 908), (sym_rethrow_expression, STATE 908),
     (sym_assignment_expression, STATE 908), (sym_assignable_expression, STATE 1940),
     (sym_function_expression, STATE 962), (sym_if_null_expression, STATE 1477),
     (sym_conditional_expression, STATE 1477), (sym_logical_or_expression, STATE 1477),
     (sym_logical_and_expression, STATE 1477), (sym_equality_expression, STATE 1477),
     (sym_type_cast_expression, STATE 1477), (sym_type_test_expression, STATE 1477),
     (sym_relational_expression, STATE 1477), (sym_bitwise_or_expression, STATE 1477),
     (sym_bitwise_xor_expression, STATE 1477), (sym_bitwise_and_expression, STATE 1477),
     (sym_shift_expression, STATE 1477), (sym_additive_expression, STATE 1477),
     (sym_multiplicative_expression, STATE 1477), (sym__unary_expression, STATE 1121),
     (sym_unary_expression, STATE 1303), (sym__postfix_expression, STATE 1303),
     (sym_postfix_expression, STATE 1301), (sym_prefix_operator, STATE 431),
     (sym_negation_operator, STATE 1450), (sym__exclamation_operator, STATE 1451),
     (sym_tilde_operator, STATE 1385), (sym_await_expression, STATE 1302),
     (sym_new_expression, STATE 962), (sym_const_object_expression, STATE 962),
     (sym__primary, STATE 668), (sym_parenthesized_expression, STATE 962),
     (sym_constructor_invocation, STATE 643), (sym_constructor_tearoff, STATE 962),
     (sym_type_arguments, STATE 3200), (sym_switch_expression, STATE 962),
     (sym__parenthesized_pattern, STATE 3182), (sym_list_pattern, STATE 3182),
     (sym_map_pattern, STATE 3182), (sym_record_pattern, STATE 3182),
     (sym_object_pattern, STATE 3182), (sym__outer_pattern, STATE 3410),
     (sym_pattern_assignment, STATE 908), (sym_type_parameters, STATE 2932),
     (sym__type_name, STATE 2661), (sym__formal_parameter_part, STATE 2339),
     (sym_formal_parameter_list, STATE 2020), (sym__strict_formal_parameter_list, STATE 2016),
     (sym__new_builtin, STATE 2079), (sym_this, STATE 962), (sym_super, STATE 1337),
     (sym_comment, STATE 206), (sym_documentation_comment, STATE 206),
     (aux_sym_string_literal_repeat1, STATE 474), (sym_identifier, ACTIONS 494),
     (anon_sym_POUND, ACTIONS 73), (sym_decimal_integer_literal, ACTIONS 75),
     (sym_hex_integer_literal, ACTIONS 77), (sym_decimal_floating_point_literal, ACTIONS 75),
     (anon_sym_true, ACTIONS 79), (anon_sym_false, ACTIONS 81), (anon_sym_DQUOTE, ACTIONS 83),
     (anon_sym_SQUOTE, ACTIONS 85), (anon_sym_DQUOTE_DQUOTE_DQUOTE, ACTIONS 87),
     (anon_sym_SQUOTE_SQUOTE_SQUOTE, ACTIONS 89), (anon_sym_r_DQUOTE, ACTIONS 91),
     (anon_sym_r_SQUOTE, ACTIONS 93), (anon_sym_r_DQUOTE_DQUOTE_DQUOTE, ACTIONS 95),
     (anon_sym_r_SQUOTE_SQUOTE_SQUOTE, ACTIONS 97), (anon_sym_LBRACE, ACTIONS 442),
     (anon_sym_LBRACK, ACTIONS 103), (anon_sym_null, ACTIONS 105),
     (anon_sym_LPAREN, ACTIONS 498), (anon_sym_throw, ACTIONS 109), (anon_sym_LT, ACTIONS 111),
     (sym_increment_operator, ACTIONS 113), (sym_minus_operator, ACTIONS 117),
     (anon_sym_BANG, ACTIONS 119), (anon_sym_TILDE, ACTIONS 121), (anon_sym_await, ACTIONS 432),
     (anon_sym_switch, ACTIONS 412), (sym_rethrow_builtin, ACTIONS 151),
     (anon_sym_new, ACTIONS 155), (sym_const_builtin, ACTIONS 478), (anon_sym_this, ACTIONS 159),
     (anon_sym_super, ACTIONS 161), (anon_sym_SLASH_SLASH, ACTIONS 3),
     (anon_sym_SLASH_STAR, ACTIONS 5), (anon_sym_SLASH_SLASH_SLASH, ACTIONS 7),
     (sym__block_comment, ACTIONS 9), (sym__documentation_block_comment, ACTIONS 11)]"

lemma row_ok_206: "table_row_ok 206 ts_parse_table_206"
  by (simp add: row_simps ts_parse_table_206_def)

definition ts_parse_table_207 :: table_row where
  "ts_parse_table_207 = [
     (sym__bool_literal, STATE 989), (sym__numeric_literal, STATE 989),
     (sym__literal, STATE 962), (sym_symbol_literal, STATE 989), (sym_true, STATE 900),
     (sym_false, STATE 900), (sym_string_literal, STATE 989),
     (sym__string_literal_double_quotes, STATE 627),
     (sym__string_literal_single_quotes, STATE 627),
     (sym__string_literal_double_quotes_multiple, STATE 627),
     (sym__string_literal_single_quotes_multiple, STATE 627),
     (sym__raw_string_literal_double_quotes, STATE 627),
     (sym__raw_string_literal_single_quotes, STATE 627),
     (sym__raw_string_literal_double_quotes_multiple, STATE 627),
     (sym__raw_string_literal_single_quotes_multiple, STATE 627), (sym_list_literal, STATE 989),
     (sym_set_or_map_literal, STATE 989), (sym_null_literal, STATE 989),
     (sym_record_literal, STATE 989), (sym__record_literal_no_const, STATE 924),
     (sym__expression, STATE 1236), (sym__real_expression, STATE 510),
     (sym_throw_expression, STATE 1267), (sym_rethrow_expression, STATE 1267),
     (sym_assignment_expression, STATE 1267), (sym_assignable_expression, STATE 1956),
     (sym_function_expression, STATE 962), (sym_if_null_expression, STATE 996),
     (sym_conditional_expression, STATE 996), (sym_logical_or_expression, STATE 996),
     (sym_logical_and_expression, STATE 996), (sym_equality_expression, STATE 996),
     (sym_type_cast_expression, STATE 996), (sym_type_test_expression, STATE 996),
     (sym_relational_expression, STATE 996), (sym_bitwise_or_expression, STATE 996),
     (sym_bitwise_xor_expression, STATE 996), (sym_bitwise_and_expression, STATE 996),
     (sym_shift_expression, STATE 996), (sym_additive_expression, STATE 996),
     (sym_multiplicative_expression, STATE 996), (sym__unary_expression, STATE 787),
     (sym_unary_expression, STATE 994), (sym__postfix_expression, STATE 994),
     (sym_postfix_expression, STATE 993), (sym_prefix_operator, STATE 421),
     (sym_negation_operator, STATE 1450), (sym__exclamation_operator, STATE 1451),
     (sym_tilde_operator, STATE 1357), (sym_await_expression, STATE 991),
     (sym_new_expression, STATE 962), (sym_const_object_expression, STATE 962),
     (sym__primary, STATE 648), (sym_parenthesized_expression, STATE 962),
     (sym_constructor_invocation, STATE 643), (sym_constructor_tearoff, STATE 962),
     (sym_type_arguments, STATE 3200), (sym_switch_expression, STATE 962),
     (sym__parenthesized_pattern, STATE 3182), (sym_list_pattern, STATE 3182),
     (sym_map_pattern, STATE 3182), (sym_record_pattern, STATE 3182),
     (sym_object_pattern, STATE 3182), (sym__outer_pattern, STATE 3409),
     (sym_pattern_assignment, STATE 1267), (sym_type_parameters, STATE 2932),
     (sym__type_name, STATE 2661), (sym__formal_parameter_part, STATE 2339),
     (sym_formal_parameter_list, STATE 2020), (sym__strict_formal_parameter_list, STATE 2016),
     (sym__new_builtin, STATE 2079), (sym_this, STATE 962), (sym_super, STATE 1338),
     (sym_comment, STATE 207), (sym_documentation_comment, STATE 207),
     (aux_sym_string_literal_repeat1, STATE 474), (sym_identifier, ACTIONS 494),
     (anon_sym_POUND, ACTIONS 73), (sym_decimal_integer_literal, ACTIONS 75),
     (sym_hex_integer_literal, ACTIONS 77), (sym_decimal_floating_point_literal, ACTIONS 75),
     (anon_sym_true, ACTIONS 79), (anon_sym_false, ACTIONS 81), (anon_sym_DQUOTE, ACTIONS 83),
     (anon_sym_SQUOTE, ACTIONS 85), (anon_sym_DQUOTE_DQUOTE_DQUOTE, ACTIONS 87),
     (anon_sym_SQUOTE_SQUOTE_SQUOTE, ACTIONS 89), (anon_sym_r_DQUOTE, ACTIONS 91),
     (anon_sym_r_SQUOTE, ACTIONS 93), (anon_sym_r_DQUOTE_DQUOTE_DQUOTE, ACTIONS 95),
     (anon_sym_r_SQUOTE_SQUOTE_SQUOTE, ACTIONS 97), (anon_sym_LBRACE, ACTIONS 442),
     (anon_sym_LBRACK, ACTIONS 103), (anon_sym_null, ACTIONS 105),
     (anon_sym_LPAREN, ACTIONS 498), (anon_sym_throw, ACTIONS 686), (anon_sym_LT, ACTIONS 111),
     (sym_increment_operator, ACTIONS 688), (sym_minus_operator, ACTIONS 690),
     (anon_sym_BANG, ACTIONS 119), (anon_sym_TILDE, ACTIONS 121), (anon_sym_await, ACTIONS 692),
     (anon_sym_switch, ACTIONS 412), (sym_rethrow_builtin, ACTIONS 694),
     (anon_sym_new, ACTIONS 155), (sym_const_builtin, ACTIONS 478), (anon_sym_this, ACTIONS 159),
     (anon_sym_super, ACTIONS 161), (anon_sym_SLASH_SLASH, ACTIONS 3),
     (anon_sym_SLASH_STAR, ACTIONS 5), (anon_sym_SLASH_SLASH_SLASH, ACTIONS 7),
     (sym__block_comment, ACTIONS 9), (sym__documentation_block_comment, ACTIONS 11)]"

lemma row_ok_207: "table_row_ok 207 ts_parse_table_207"
  by (simp add: row_simps ts_parse_table_207_def)

definition ts_parse_table_208 :: table_row where
  "ts_parse_table_208 = [
     (sym__bool_literal, STATE 989), (sym__numeric_literal, STATE 989),
     (sym__literal, STATE 962), (sym_symbol_literal, STATE 989), (sym_true, STATE 900),
     (sym_false, STATE 900), (sym_string_literal, STATE 989),
     (sym__string_literal_double_quotes, STATE 627),
     (sym__string_literal_single_quotes, STATE 627),
     (sym__string_literal_double_quotes_multiple, STATE 627),
     (sym__string_literal_single_quotes_multiple, STATE 627),
     (sym__raw_string_literal_double_quotes, STATE 627),
     (sym__raw_string_literal_single_quotes, STATE 627),
     (sym__raw_string_literal_double_quotes_multiple, STATE 627),
     (sym__raw_string_literal_single_quotes_multiple, STATE 627), (sym_list_literal, STATE 989),
     (sym_set_or_map_literal, STATE 989), (sym_null_literal, STATE 989),
     (sym_record_literal, STATE 989), (sym__record_literal_no_const, STATE 924),
     (sym__expression, STATE 3281), (sym__real_expression, STATE 660),
     (sym_throw_expression, STATE 908), (sym_rethrow_expression, STATE 908),
     (sym_assignment_expression, STATE 908), (sym_assignable_expression, STATE 1940),
     (sym_function_expression, STATE 962), (sym_if_null_expression, STATE 1477),
     (sym_conditional_expression, STATE 1477), (sym_logical_or_expression, STATE 1477),
     (sym_logical_and_expression, STATE 1477), (sym_equality_expression, STATE 1477),
     (sym_type_cast_expression, STATE 1477), (sym_type_test_expression, STATE 1477),
     (sym_relational_expression, STATE 1477), (sym_bitwise_or_expression, STATE 1477),
     (sym_bitwise_xor_expression, STATE 1477), (sym_bitwise_and_expression, STATE 1477),
     (sym_shift_expression, STATE 1477), (sym_additive_expression, STATE 1477),
     (sym_multiplicative_expression, STATE 1477), (sym__unary_expression, STATE 1121),
     (sym_unary_expression, STATE 1303), (sym__postfix_expression, STATE 1303),
     (sym_postfix_expression, STATE 1301), (sym_prefix_operator, STATE 431),
     (sym_negation_operator, STATE 1450), (sym__exclamation_operator, STATE 1451),
     (sym_tilde_operator, STATE 1385), (sym_await_expression, STATE 1302),
     (sym_new_expression, STATE 962), (sym_const_object_expression, STATE 962),
     (sym__primary, STATE 668), (sym_parenthesized_expression, STATE 962),
     (sym_constructor_invocation, STATE 643), (sym_constructor_tearoff, STATE 962),
     (sym_type_arguments, STATE 3200), (sym_switch_expression, STATE 962),
     (sym__parenthesized_pattern, STATE 3182), (sym_list_pattern, STATE 3182),
     (sym_map_pattern, STATE 3182), (sym_record_pattern, STATE 3182),
     (sym_object_pattern, STATE 3182), (sym__outer_pattern, STATE 3410),
     (sym_pattern_assignment, STATE 908), (sym_type_parameters, STATE 2932),
     (sym__type_name, STATE 2661), (sym__formal_parameter_part, STATE 2339),
     (sym_formal_parameter_list, STATE 2020), (sym__strict_formal_parameter_list, STATE 2016),
     (sym__new_builtin, STATE 2079), (sym_this, STATE 962), (sym_super, STATE 1337),
     (sym_comment, STATE 208), (sym_documentation_comment, STATE 208),
     (aux_sym_string_literal_repeat1, STATE 474), (sym_identifier, ACTIONS 494),
     (anon_sym_POUND, ACTIONS 73), (sym_decimal_integer_literal, ACTIONS 75),
     (sym_hex_integer_literal, ACTIONS 77), (sym_decimal_floating_point_literal, ACTIONS 75),
     (anon_sym_true, ACTIONS 79), (anon_sym_false, ACTIONS 81), (anon_sym_DQUOTE, ACTIONS 83),
     (anon_sym_SQUOTE, ACTIONS 85), (anon_sym_DQUOTE_DQUOTE_DQUOTE, ACTIONS 87),
     (anon_sym_SQUOTE_SQUOTE_SQUOTE, ACTIONS 89), (anon_sym_r_DQUOTE, ACTIONS 91),
     (anon_sym_r_SQUOTE, ACTIONS 93), (anon_sym_r_DQUOTE_DQUOTE_DQUOTE, ACTIONS 95),
     (anon_sym_r_SQUOTE_SQUOTE_SQUOTE, ACTIONS 97), (anon_sym_LBRACE, ACTIONS 442),
     (anon_sym_LBRACK, ACTIONS 103), (anon_sym_null, ACTIONS 105),
     (anon_sym_LPAREN, ACTIONS 498), (anon_sym_throw, ACTIONS 109), (anon_sym_LT, ACTIONS 111),
     (sym_increment_operator, ACTIONS 113), (sym_minus_operator, ACTIONS 117),
     (anon_sym_BANG, ACTIONS 119), (anon_sym_TILDE, ACTIONS 121), (anon_sym_await, ACTIONS 432),
     (anon_sym_switch, ACTIONS 412), (sym_rethrow_builtin, ACTIONS 151),
     (anon_sym_new, ACTIONS 155), (sym_const_builtin, ACTIONS 478), (anon_sym_this, ACTIONS 159),
     (anon_sym_super, ACTIONS 161), (anon_sym_SLASH_SLASH, ACTIONS 3),
     (anon_sym_SLASH_STAR, ACTIONS 5), (anon_sym_SLASH_SLASH_SLASH, ACTIONS 7),
     (sym__block_comment, ACTIONS 9), (sym__documentation_block_comment, ACTIONS 11)]"

lemma row_ok_208: "table_row_ok 208 ts_parse_table_208"
  by (simp add: row_simps ts_parse_table_208_def)

definition ts_parse_table_209 :: table_row where
  "ts_parse_table_209 = [
     (sym__bool_literal, STATE 989), (sym__numeric_literal, STATE 989),
     (sym__literal, STATE 962), (sym_symbol_literal, STATE 989), (sym_true, STATE 900),
     (sym_false, STATE 900), (sym_string_literal, STATE 989),
     (sym__string_literal_double_quotes, STATE 627),
     (sym__string_literal_single_quotes, STATE 627),
     (sym__string_literal_double_quotes_multiple, STATE 627),
     (sym__string_literal_single_quotes_multiple, STATE 627),
     (sym__raw_string_literal_double_quotes, STATE 627),
     (sym__raw_string_literal_single_quotes, STATE 627),
     (sym__raw_string_literal_double_quotes_multiple, STATE 627),
     (sym__raw_string_literal_single_quotes_multiple, STATE 627), (sym_list_literal, STATE 989),
     (sym_set_or_map_literal, STATE 989), (sym_null_literal, STATE 989),
     (sym_record_literal, STATE 989), (sym__record_literal_no_const, STATE 924),
     (sym__expression, STATE 3256), (sym__real_expression, STATE 660),
     (sym_throw_expression, STATE 908), (sym_rethrow_expression, STATE 908),
     (sym_assignment_expression, STATE 908), (sym_assignable_expression, STATE 1940),
     (sym_function_expression, STATE 962), (sym_if_null_expression, STATE 1477),
     (sym_conditional_expression, STATE 1477), (sym_logical_or_expression, STATE 1477),
     (sym_logical_and_expression, STATE 1477), (sym_equality_expression, STATE 1477),
     (sym_type_cast_expression, STATE 1477), (sym_type_test_expression, STATE 1477),
     (sym_relational_expression, STATE 1477), (sym_bitwise_or_expression, STATE 1477),
     (sym_bitwise_xor_expression, STATE 1477), (sym_bitwise_and_expression, STATE 1477),
     (sym_shift_expression, STATE 1477), (sym_additive_expression, STATE 1477),
     (sym_multiplicative_expression, STATE 1477), (sym__unary_expression, STATE 1121),
     (sym_unary_expression, STATE 1303), (sym__postfix_expression, STATE 1303),
     (sym_postfix_expression, STATE 1301), (sym_prefix_operator, STATE 431),
     (sym_negation_operator, STATE 1450), (sym__exclamation_operator, STATE 1451),
     (sym_tilde_operator, STATE 1385), (sym_await_expression, STATE 1302),
     (sym_new_expression, STATE 962), (sym_const_object_expression, STATE 962),
     (sym__primary, STATE 668), (sym_parenthesized_expression, STATE 962),
     (sym_constructor_invocation, STATE 643), (sym_constructor_tearoff, STATE 962),
     (sym_type_arguments, STATE 3200), (sym_switch_expression, STATE 962),
     (sym__parenthesized_pattern, STATE 3182), (sym_list_pattern, STATE 3182),
     (sym_map_pattern, STATE 3182), (sym_record_pattern, STATE 3182),
     (sym_object_pattern, STATE 3182), (sym__outer_pattern, STATE 3410),
     (sym_pattern_assignment, STATE 908), (sym_type_parameters, STATE 2932),
     (sym__type_name, STATE 2661), (sym__formal_parameter_part, STATE 2339),
     (sym_formal_parameter_list, STATE 2020), (sym__strict_formal_parameter_list, STATE 2016),
     (sym__new_builtin, STATE 2079), (sym_this, STATE 962), (sym_super, STATE 1337),
     (sym_comment, STATE 209), (sym_documentation_comment, STATE 209),
     (aux_sym_string_literal_repeat1, STATE 474), (sym_identifier, ACTIONS 494),
     (anon_sym_POUND, ACTIONS 73), (sym_decimal_integer_literal, ACTIONS 75),
     (sym_hex_integer_literal, ACTIONS 77), (sym_decimal_floating_point_literal, ACTIONS 75),
     (anon_sym_true, ACTIONS 79), (anon_sym_false, ACTIONS 81), (anon_sym_DQUOTE, ACTIONS 83),
     (anon_sym_SQUOTE, ACTIONS 85), (anon_sym_DQUOTE_DQUOTE_DQUOTE, ACTIONS 87),
     (anon_sym_SQUOTE_SQUOTE_SQUOTE, ACTIONS 89), (anon_sym_r_DQUOTE, ACTIONS 91),
     (anon_sym_r_SQUOTE, ACTIONS 93), (anon_sym_r_DQUOTE_DQUOTE_DQUOTE, ACTIONS 95),
     (anon_sym_r_SQUOTE_SQUOTE_SQUOTE, ACTIONS 97), (anon_sym_LBRACE, ACTIONS 442),
     (anon_sym_LBRACK, ACTIONS 103), (anon_sym_null, ACTIONS 105),
     (anon_sym_LPAREN, ACTIONS 498), (anon_sym_throw, ACTIONS 109), (anon_sym_LT, ACTIONS 111),
     (sym_increment_operator, ACTIONS 113), (sym_minus_operator, ACTIONS 117),
     (anon_sym_BANG, ACTIONS 119), (anon_sym_TILDE, ACTIONS 121), (anon_sym_await, ACTIONS 432),
     (anon_sym_switch, ACTIONS 412), (sym_rethrow_builtin, ACTIONS 151),
     (anon_sym_new, ACTIONS 155), (sym_const_builtin, ACTIONS 478), (anon_sym_this, ACTIONS 159),
     (anon_sym_super, ACTIONS 161), (anon_sym_SLASH_SLASH, ACTIONS 3),
     (anon_sym_SLASH_STAR, ACTIONS 5), (anon_sym_SLASH_SLASH_SLASH, ACTIONS 7),
     (sym__block_comment, ACTIONS 9), (sym__documentation_block_comment, ACTIONS 11)]"

lemma row_ok_209: "table_row_ok 209 ts_parse_table_209"
  by (simp add: row_simps ts_parse_table_209_def)

definition ts_parse_table_210 :: table_row where
  "ts_parse_table_210 = [
     (sym__bool_literal, STATE 1115), (sym__numeric_literal, STATE 1115),
     (sym__literal, STATE 1135), (sym_symbol_literal, STATE 1115), (sym_true, STATE 1165),
     (sym_false, STATE 1165), (sym_string_literal, STATE 1115),
     (sym__string_literal_double_quotes, STATE 729),
     (sym__string_literal_single_quotes, STATE 729),
     (sym__string_literal_double_quotes_multiple, STATE 729),
     (sym__string_literal_single_quotes_multiple, STATE 729),
     (sym__raw_string_literal_double_quotes, STATE 729),
     (sym__raw_string_literal_single_quotes, STATE 729),
     (sym__raw_string_literal_double_quotes_multiple, STATE 729),
     (sym__raw_string_literal_single_quotes_multiple, STATE 729), (sym_list_literal, STATE 1115),
     (sym_set_or_map_literal, STATE 1115), (sym_null_literal, STATE 1115),
     (sym_record_literal, STATE 1115), (sym__record_literal_no_const, STATE 1187),
     (sym__expression, STATE 1131), (sym__real_expression, STATE 508),
     (sym_throw_expression, STATE 1186), (sym_rethrow_expression, STATE 1186),
     (sym_assignment_expression, STATE 1186), (sym_assignable_expression, STATE 1932),
     (sym_function_expression, STATE 1135), (sym_if_null_expression, STATE 1117),
     (sym_conditional_expression, STATE 1117), (sym_logical_or_expression, STATE 1117),
     (sym_logical_and_expression, STATE 1117), (sym_equality_expression, STATE 1117),
     (sym_type_cast_expression, STATE 1117), (sym_type_test_expression, STATE 1117),
     (sym_relational_expression, STATE 1117), (sym_bitwise_or_expression, STATE 1117),
     (sym_bitwise_xor_expression, STATE 1117), (sym_bitwise_and_expression, STATE 1117),
     (sym_shift_expression, STATE 1117), (sym_additive_expression, STATE 1117),
     (sym_multiplicative_expression, STATE 1117), (sym__unary_expression, STATE 902),
     (sym_unary_expression, STATE 1114), (sym__postfix_expression, STATE 1114),
     (sym_postfix_expression, STATE 1098), (sym_prefix_operator, STATE 417),
     (sym_negation_operator, STATE 1450), (sym__exclamation_operator, STATE 1451),
     (sym_tilde_operator, STATE 1359), (sym_await_expression, STATE 1093),
     (sym_new_expression, STATE 1135), (sym_const_object_expression, STATE 1135),
     (sym__primary, STATE 690), (sym_parenthesized_expression, STATE 1135),
     (sym_constructor_invocation, STATE 699), (sym_constructor_tearoff, STATE 1135),
     (sym_type_arguments, STATE 3109), (sym_switch_expression, STATE 1135),
     (sym__parenthesized_pattern, STATE 3182), (sym_list_pattern, STATE 3182),
     (sym_map_pattern, STATE 3182), (sym_record_pattern, STATE 3182),
     (sym_object_pattern, STATE 3182), (sym__outer_pattern, STATE 3287),
     (sym_pattern_assignment, STATE 1186), (sym_type_parameters, STATE 2932),
     (sym__type_name, STATE 2663), (sym__formal_parameter_part, STATE 2358),
     (sym_formal_parameter_list, STATE 2020), (sym__strict_formal_parameter_list, STATE 2016),
     (sym__new_builtin, STATE 2074), (sym_this, STATE 1135), (sym_super, STATE 1344),
     (sym_comment, STATE 210), (sym_documentation_comment, STATE 210),
     (aux_sym_string_literal_repeat1, STATE 595), (sym_identifier, ACTIONS 696),
     (anon_sym_POUND, ACTIONS 698), (sym_decimal_integer_literal, ACTIONS 700),
     (sym_hex_integer_literal, ACTIONS 702), (sym_decimal_floating_point_literal, ACTIONS 700),
     (anon_sym_true, ACTIONS 704), (anon_sym_false, ACTIONS 706), (anon_sym_DQUOTE, ACTIONS 708),
     (anon_sym_SQUOTE, ACTIONS 710), (anon_sym_DQUOTE_DQUOTE_DQUOTE, ACTIONS 712),
     (anon_sym_SQUOTE_SQUOTE_SQUOTE, ACTIONS 714), (anon_sym_r_DQUOTE, ACTIONS 716),
     (anon_sym_r_SQUOTE, ACTIONS 718), (anon_sym_r_DQUOTE_DQUOTE_DQUOTE, ACTIONS 720),
     (anon_sym_r_SQUOTE_SQUOTE_SQUOTE, ACTIONS 722), (anon_sym_LBRACE, ACTIONS 724),
     (anon_sym_LBRACK, ACTIONS 726), (anon_sym_null, ACTIONS 728),
     (anon_sym_LPAREN, ACTIONS 730), (anon_sym_throw, ACTIONS 732), (anon_sym_LT, ACTIONS 111),
     (sym_increment_operator, ACTIONS 734), (sym_minus_operator, ACTIONS 736),
     (anon_sym_BANG, ACTIONS 119), (anon_sym_TILDE, ACTIONS 121), (anon_sym_await, ACTIONS 738),
     (anon_sym_switch, ACTIONS 740), (sym_rethrow_builtin, ACTIONS 742),
     (anon_sym_new, ACTIONS 155), (sym_const_builtin, ACTIONS 744), (anon_sym_this, ACTIONS 746),
     (anon_sym_super, ACTIONS 161), (anon_sym_SLASH_SLASH, ACTIONS 3),
     (anon_sym_SLASH_STAR, ACTIONS 5), (anon_sym_SLASH_SLASH_SLASH, ACTIONS 7),
     (sym__block_comment, ACTIONS 9), (sym__documentation_block_comment, ACTIONS 11)]"

lemma row_ok_210: "table_row_ok 210 ts_parse_table_210"
  by (simp add: row_simps ts_parse_table_210_def)

definition ts_parse_table_211 :: table_row where
  "ts_parse_table_211 = [
     (sym__bool_literal, STATE 989), (sym__numeric_literal, STATE 989),
     (sym__literal, STATE 962), (sym_symbol_literal, STATE 989), (sym_true, STATE 900),
     (sym_false, STATE 900), (sym_string_literal, STATE 989),
     (sym__string_literal_double_quotes, STATE 627),
     (sym__string_literal_single_quotes, STATE 627),
     (sym__string_literal_double_quotes_multiple, STATE 627),
     (sym__string_literal_single_quotes_multiple, STATE 627),
     (sym__raw_string_literal_double_quotes, STATE 627),
     (sym__raw_string_literal_single_quotes, STATE 627),
     (sym__raw_string_literal_double_quotes_multiple, STATE 627),
     (sym__raw_string_literal_single_quotes_multiple, STATE 627), (sym_list_literal, STATE 989),
     (sym_set_or_map_literal, STATE 989), (sym_null_literal, STATE 989),
     (sym_record_literal, STATE 989), (sym__record_literal_no_const, STATE 924),
     (sym__expression, STATE 3407), (sym__real_expression, STATE 660),
     (sym_throw_expression, STATE 908), (sym_rethrow_expression, STATE 908),
     (sym_assignment_expression, STATE 908), (sym_assignable_expression, STATE 1940),
     (sym_function_expression, STATE 962), (sym_if_null_expression, STATE 1477),
     (sym_conditional_expression, STATE 1477), (sym_logical_or_expression, STATE 1477),
     (sym_logical_and_expression, STATE 1477), (sym_equality_expression, STATE 1477),
     (sym_type_cast_expression, STATE 1477), (sym_type_test_expression, STATE 1477),
     (sym_relational_expression, STATE 1477), (sym_bitwise_or_expression, STATE 1477),
     (sym_bitwise_xor_expression, STATE 1477), (sym_bitwise_and_expression, STATE 1477),
     (sym_shift_expression, STATE 1477), (sym_additive_expression, STATE 1477),
     (sym_multiplicative_expression, STATE 1477), (sym__unary_expression, STATE 1121),
     (sym_unary_expression, STATE 1303), (sym__postfix_expression, STATE 1303),
     (sym_postfix_expression, STATE 1301), (sym_prefix_operator, STATE 431),
     (sym_negation_operator, STATE 1450), (sym__exclamation_operator, STATE 1451),
     (sym_tilde_operator, STATE 1385), (sym_await_expression, STATE 1302),
     (sym_new_expression, STATE 962), (sym_const_object_expression, STATE 962),
     (sym__primary, STATE 668), (sym_parenthesized_expression, STATE 962),
     (sym_constructor_invocation, STATE 643), (sym_constructor_tearoff, STATE 962),
     (sym_type_arguments, STATE 3200), (sym_switch_expression, STATE 962),
     (sym__parenthesized_pattern, STATE 3182), (sym_list_pattern, STATE 3182),
     (sym_map_pattern, STATE 3182), (sym_record_pattern, STATE 3182),
     (sym_object_pattern, STATE 3182), (sym__outer_pattern, STATE 3410),
     (sym_pattern_assignment, STATE 908), (sym_type_parameters, STATE 2932),
     (sym__type_name, STATE 2661), (sym__formal_parameter_part, STATE 2339),
     (sym_formal_parameter_list, STATE 2020), (sym__strict_formal_parameter_list, STATE 2016),
     (sym__new_builtin, STATE 2079), (sym_this, STATE 962), (sym_super, STATE 1337),
     (sym_comment, STATE 211), (sym_documentation_comment, STATE 211),
     (aux_sym_string_literal_repeat1, STATE 474), (sym_identifier, ACTIONS 494),
     (anon_sym_POUND, ACTIONS 73), (sym_decimal_integer_literal, ACTIONS 75),
     (sym_hex_integer_literal, ACTIONS 77), (sym_decimal_floating_point_literal, ACTIONS 75),
     (anon_sym_true, ACTIONS 79), (anon_sym_false, ACTIONS 81), (anon_sym_DQUOTE, ACTIONS 83),
     (anon_sym_SQUOTE, ACTIONS 85), (anon_sym_DQUOTE_DQUOTE_DQUOTE, ACTIONS 87),
     (anon_sym_SQUOTE_SQUOTE_SQUOTE, ACTIONS 89), (anon_sym_r_DQUOTE, ACTIONS 91),
     (anon_sym_r_SQUOTE, ACTIONS 93), (anon_sym_r_DQUOTE_DQUOTE_DQUOTE, ACTIONS 95),
     (anon_sym_r_SQUOTE_SQUOTE_SQUOTE, ACTIONS 97), (anon_sym_LBRACE, ACTIONS 442),
     (anon_sym_LBRACK, ACTIONS 103), (anon_sym_null, ACTIONS 105),
     (anon_sym_LPAREN, ACTIONS 498), (anon_sym_throw, ACTIONS 109), (anon_sym_LT, ACTIONS 111),
     (sym_increment_operator, ACTIONS 113), (sym_minus_operator, ACTIONS 117),
     (anon_sym_BANG, ACTIONS 119), (anon_sym_TILDE, ACTIONS 121), (anon_sym_await, ACTIONS 432),
     (anon_sym_switch, ACTIONS 412), (sym_rethrow_builtin, ACTIONS 151),
     (anon_sym_new, ACTIONS 155), (sym_const_builtin, ACTIONS 478), (anon_sym_this, ACTIONS 159),
     (anon_sym_super, ACTIONS 161), (anon_sym_SLASH_SLASH, ACTIONS 3),
     (anon_sym_SLASH_STAR, ACTIONS 5), (anon_sym_SLASH_SLASH_SLASH, ACTIONS 7),
     (sym__block_comment, ACTIONS 9), (sym__documentation_block_comment, ACTIONS 11)]"

lemma row_ok_211: "table_row_ok 211 ts_parse_table_211"
  by (simp add: row_simps ts_parse_table_211_def)

definition ts_parse_table_212 :: table_row where
  "ts_parse_table_212 = [
     (sym__bool_literal, STATE 989), (sym__numeric_literal, STATE 989),
     (sym__literal, STATE 962), (sym_symbol_literal, STATE 989), (sym_true, STATE 900),
     (sym_false, STATE 900), (sym_string_literal, STATE 989),
     (sym__string_literal_double_quotes, STATE 627),
     (sym__string_literal_single_quotes, STATE 627),
     (sym__string_literal_double_quotes_multiple, STATE 627),
     (sym__string_literal_single_quotes_multiple, STATE 627),
     (sym__raw_string_literal_double_quotes, STATE 627),
     (sym__raw_string_literal_single_quotes, STATE 627),
     (sym__raw_string_literal_double_quotes_multiple, STATE 627),
     (sym__raw_string_literal_single_quotes_multiple, STATE 627), (sym_list_literal, STATE 989),
     (sym_set_or_map_literal, STATE 989), (sym_null_literal, STATE 989),
     (sym_record_literal, STATE 989), (sym__record_literal_no_const, STATE 924),
     (sym__expression, STATE 3403), (sym__real_expression, STATE 660),
     (sym_throw_expression, STATE 908), (sym_rethrow_expression, STATE 908),
     (sym_assignment_expression, STATE 908), (sym_assignable_expression, STATE 1940),
     (sym_function_expression, STATE 962), (sym_if_null_expression, STATE 1477),
     (sym_conditional_expression, STATE 1477), (sym_logical_or_expression, STATE 1477),
     (sym_logical_and_expression, STATE 1477), (sym_equality_expression, STATE 1477),
     (sym_type_cast_expression, STATE 1477), (sym_type_test_expression, STATE 1477),
     (sym_relational_expression, STATE 1477), (sym_bitwise_or_expression, STATE 1477),
     (sym_bitwise_xor_expression, STATE 1477), (sym_bitwise_and_expression, STATE 1477),
     (sym_shift_expression, STATE 1477), (sym_additive_expression, STATE 1477),
     (sym_multiplicative_expression, STATE 1477), (sym__unary_expression, STATE 1121),
     (sym_unary_expression, STATE 1303), (sym__postfix_expression, STATE 1303),
     (sym_postfix_expression, STATE 1301), (sym_prefix_operator, STATE 431),
     (sym_negation_operator, STATE 1450), (sym__exclamation_operator, STATE 1451),
     (sym_tilde_operator, STATE 1385), (sym_await_expression, STATE 1302),
     (sym_new_expression, STATE 962), (sym_const_object_expression, STATE 962),
     (sym__primary, STATE 668), (sym_parenthesized_expression, STATE 962),
     (sym_constructor_invocation, STATE 643), (sym_constructor_tearoff, STATE 962),
     (sym_type_arguments, STATE 3200), (sym_switch_expression, STATE 962),
     (sym__parenthesized_pattern, STATE 3182), (sym_list_pattern, STATE 3182),
     (sym_map_pattern, STATE 3182), (sym_record_pattern, STATE 3182),
     (sym_object_pattern, STATE 3182), (sym__outer_pattern, STATE 3410),
     (sym_pattern_assignment, STATE 908), (sym_type_parameters, STATE 2932),
     (sym__type_name, STATE 2661), (sym__formal_parameter_part, STATE 2339),
     (sym_formal_parameter_list, STATE 2020), (sym__strict_formal_parameter_list, STATE 2016),
     (sym__new_builtin, STATE 2079), (sym_this, STATE 962), (sym_super, STATE 1337),
     (sym_comment, STATE 212), (sym_documentation_comment, STATE 212),
     (aux_sym_string_literal_repeat1, STATE 474), (sym_identifier, ACTIONS 494),
     (anon_sym_POUND, ACTIONS 73), (sym_decimal_integer_literal, ACTIONS 75),
     (sym_hex_integer_literal, ACTIONS 77), (sym_decimal_floating_point_literal, ACTIONS 75),
     (anon_sym_true, ACTIONS 79), (anon_sym_false, ACTIONS 81), (anon_sym_DQUOTE, ACTIONS 83),
     (anon_sym_SQUOTE, ACTIONS 85), (anon_sym_DQUOTE_DQUOTE_DQUOTE, ACTIONS 87),
     (anon_sym_SQUOTE_SQUOTE_SQUOTE, ACTIONS 89), (anon_sym_r_DQUOTE, ACTIONS 91),
     (anon_sym_r_SQUOTE, ACTIONS 93), (anon_sym_r_DQUOTE_DQUOTE_DQUOTE, ACTIONS 95),
     (anon_sym_r_SQUOTE_SQUOTE_SQUOTE, ACTIONS 97), (anon_sym_LBRACE, ACTIONS 442),
     (anon_sym_LBRACK, ACTIONS 103), (anon_sym_null, ACTIONS 105),
     (anon_sym_LPAREN, ACTIONS 498), (anon_sym_throw, ACTIONS 109), (anon_sym_LT, ACTIONS 111),
     (sym_increment_operator, ACTIONS 113), (sym_minus_operator, ACTIONS 117),
     (anon_sym_BANG, ACTIONS 119), (anon_sym_TILDE, ACTIONS 121), (anon_sym_await, ACTIONS 432),
     (anon_sym_switch, ACTIONS 412), (sym_rethrow_builtin, ACTIONS 151),
     (anon_sym_new, ACTIONS 155), (sym_const_builtin, ACTIONS 478), (anon_sym_this, ACTIONS 159),
     (anon_sym_super, ACTIONS 161), (anon_sym_SLASH_SLASH, ACTIONS 3),
     (anon_sym_SLASH_STAR, ACTIONS 5), (anon_sym_SLASH_SLASH_SLASH, ACTIONS 7),
     (sym__block_comment, ACTIONS 9), (sym__documentation_block_comment, ACTIONS 11)]"

lemma row_ok_212: "table_row_ok 212 ts_parse_table_212"
  by (simp add: row_simps ts_parse_table_212_def)

definition ts_parse_table_213 :: table_row where
  "ts_parse_table_213 = [
     (sym__bool_literal, STATE 989), (sym__numeric_literal, STATE 989),
     (sym__literal, STATE 962), (sym_symbol_literal, STATE 989), (sym_true, STATE 900),
     (sym_false, STATE 900), (sym_string_literal, STATE 989),
     (sym__string_literal_double_quotes, STATE 627),
     (sym__string_literal_single_quotes, STATE 627),
     (sym__string_literal_double_quotes_multiple, STATE 627),
     (sym__string_literal_single_quotes_multiple, STATE 627),
     (sym__raw_string_literal_double_quotes, STATE 627),
     (sym__raw_string_literal_single_quotes, STATE 627),
     (sym__raw_string_literal_double_quotes_multiple, STATE 627),
     (sym__raw_string_literal_single_quotes_multiple, STATE 627), (sym_list_literal, STATE 989),
     (sym_set_or_map_literal, STATE 989), (sym_null_literal, STATE 989),
     (sym_record_literal, STATE 989), (sym__record_literal_no_const, STATE 924),
     (sym__expression, STATE 3120), (sym__real_expression, STATE 660),
     (sym_throw_expression, STATE 908), (sym_rethrow_expression, STATE 908),
     (sym_assignment_expression, STATE 908), (sym_assignable_expression, STATE 1940),
     (sym_function_expression, STATE 962), (sym_if_null_expression, STATE 1477),
     (sym_conditional_expression, STATE 1477), (sym_logical_or_expression, STATE 1477),
     (sym_logical_and_expression, STATE 1477), (sym_equality_expression, STATE 1477),
     (sym_type_cast_expression, STATE 1477), (sym_type_test_expression, STATE 1477),
     (sym_relational_expression, STATE 1477), (sym_bitwise_or_expression, STATE 1477),
     (sym_bitwise_xor_expression, STATE 1477), (sym_bitwise_and_expression, STATE 1477),
     (sym_shift_expression, STATE 1477), (sym_additive_expression, STATE 1477),
     (sym_multiplicative_expression, STATE 1477), (sym__unary_expression, STATE 1121),
     (sym_unary_expression, STATE 1303), (sym__postfix_expression, STATE 1303),
     (sym_postfix_expression, STATE 1301), (sym_prefix_operator, STATE 431),
     (sym_negation_operator, STATE 1450), (sym__exclamation_operator, STATE 1451),
     (sym_tilde_operator, STATE 1385), (sym_await_expression, STATE 1302),
     (sym_new_expression, STATE 962), (sym_const_object_expression, STATE 962),
     (sym__primary, STATE 668), (sym_parenthesized_expression, STATE 962),
     (sym_constructor_invocation, STATE 643), (sym_constructor_tearoff, STATE 962),
     (sym_type_arguments, STATE 3200), (sym_switch_expression, STATE 962),
     (sym__parenthesized_pattern, STATE 3182), (sym_list_pattern, STATE 3182),
     (sym_map_pattern, STATE 3182), (sym_record_pattern, STATE 3182),
     (sym_object_pattern, STATE 3182), (sym__outer_pattern, STATE 3410),
     (sym_pattern_assignment, STATE 908), (sym_type_parameters, STATE 2932),
     (sym__type_name, STATE 2661), (sym__formal_parameter_part, STATE 2339),
     (sym_formal_parameter_list, STATE 2020), (sym__strict_formal_parameter_list, STATE 2016),
     (sym__new_builtin, STATE 2079), (sym_this, STATE 962), (sym_super, STATE 1337),
     (sym_comment, STATE 213), (sym_documentation_comment, STATE 213),
     (aux_sym_string_literal_repeat1, STATE 474), (sym_identifier, ACTIONS 494),
     (anon_sym_POUND, ACTIONS 73), (sym_decimal_integer_literal, ACTIONS 75),
     (sym_hex_integer_literal, ACTIONS 77), (sym_decimal_floating_point_literal, ACTIONS 75),
     (anon_sym_true, ACTIONS 79), (anon_sym_false, ACTIONS 81), (anon_sym_DQUOTE, ACTIONS 83),
     (anon_sym_SQUOTE, ACTIONS 85), (anon_sym_DQUOTE_DQUOTE_DQUOTE, ACTIONS 87),
     (anon_sym_SQUOTE_SQUOTE_SQUOTE, ACTIONS 89), (anon_sym_r_DQUOTE, ACTIONS 91),
     (anon_sym_r_SQUOTE, ACTIONS 93), (anon_sym_r_DQUOTE_DQUOTE_DQUOTE, ACTIONS 95),
     (anon_sym_r_SQUOTE_SQUOTE_SQUOTE, ACTIONS 97), (anon_sym_LBRACE, ACTIONS 442),
     (anon_sym_LBRACK, ACTIONS 103), (anon_sym_null, ACTIONS 105),
     (anon_sym_LPAREN, ACTIONS 498), (anon_sym_throw, ACTIONS 109), (anon_sym_LT, ACTIONS 111),
     (sym_increment_operator, ACTIONS 113), (sym_minus_operator, ACTIONS 117),
     (anon_sym_BANG, ACTIONS 119), (anon_sym_TILDE, ACTIONS 121), (anon_sym_await, ACTIONS 432),
     (anon_sym_switch, ACTIONS 412), (sym_rethrow_builtin, ACTIONS 151),
     (anon_sym_new, ACTIONS 155), (sym_const_builtin, ACTIONS 478), (anon_sym_this, ACTIONS 159),
     (anon_sym_super, ACTIONS 161), (anon_sym_SLASH_SLASH, ACTIONS 3),
     (anon_sym_SLASH_STAR, ACTIONS 5), (anon_sym_SLASH_SLASH_SLASH, ACTIONS 7),
     (sym__block_comment, ACTIONS 9), (sym__documentation_block_comment, ACTIONS 11)]"

lemma row_ok_213: "table_row_ok 213 ts_parse_table_213"
  by (simp add: row_simps ts_parse_table_213_def)

definition ts_parse_table_214 :: table_row where
  "ts_parse_table_214 = [
     (sym__bool_literal, STATE 1115), (sym__numeric_literal, STATE 1115),
     (sym__literal, STATE 1135), (sym_symbol_literal, STATE 1115), (sym_true, STATE 1165),
     (sym_false, STATE 1165), (sym_string_literal, STATE 1115),
     (sym__string_literal_double_quotes, STATE 729),
     (sym__string_literal_single_quotes, STATE 729),
     (sym__string_literal_double_quotes_multiple, STATE 729),
     (sym__string_literal_single_quotes_multiple, STATE 729),
     (sym__raw_string_literal_double_quotes, STATE 729),
     (sym__raw_string_literal_single_quotes, STATE 729),
     (sym__raw_string_literal_double_quotes_multiple, STATE 729),
     (sym__raw_string_literal_single_quotes_multiple, STATE 729), (sym_list_literal, STATE 1115),
     (sym_set_or_map_literal, STATE 1115), (sym_null_literal, STATE 1115),
     (sym_record_literal, STATE 1115), (sym__record_literal_no_const, STATE 1187),
     (sym__expression, STATE 1139), (sym__real_expression, STATE 508),
     (sym_throw_expression, STATE 1186), (sym_rethrow_expression, STATE 1186),
     (sym_assignment_expression, STATE 1186), (sym_assignable_expression, STATE 1932),
     (sym_function_expression, STATE 1135), (sym_if_null_expression, STATE 1117),
     (sym_conditional_expression, STATE 1117), (sym_logical_or_expression, STATE 1117),
     (sym_logical_and_expression, STATE 1117), (sym_equality_expression, STATE 1117),
     (sym_type_cast_expression, STATE 1117), (sym_type_test_expression, STATE 1117),
     (sym_relational_expression, STATE 1117), (sym_bitwise_or_expression, STATE 1117),
     (sym_bitwise_xor_expression, STATE 1117), (sym_bitwise_and_expression, STATE 1117),
     (sym_shift_expression, STATE 1117), (sym_additive_expression, STATE 1117),
     (sym_multiplicative_expression, STATE 1117), (sym__unary_expression, STATE 902),
     (sym_unary_expression, STATE 1114), (sym__postfix_expression, STATE 1114),
     (sym_postfix_expression, STATE 1098), (sym_prefix_operator, STATE 417),
     (sym_negation_operator, STATE 1450), (sym__exclamation_operator, STATE 1451),
     (sym_tilde_operator, STATE 1359), (sym_await_expression, STATE 1093),
     (sym_new_expression, STATE 1135), (sym_const_object_expression, STATE 1135),
     (sym__primary, STATE 690), (sym_parenthesized_expression, STATE 1135),
     (sym_constructor_invocation, STATE 699), (sym_constructor_tearoff, STATE 1135),
     (sym_type_arguments, STATE 3109), (sym_switch_expression, STATE 1135),
     (sym__parenthesized_pattern, STATE 3182), (sym_list_pattern, STATE 3182),
     (sym_map_pattern, STATE 3182), (sym_record_pattern, STATE 3182),
     (sym_object_pattern, STATE 3182), (sym__outer_pattern, STATE 3287),
     (sym_pattern_assignment, STATE 1186), (sym_type_parameters, STATE 2932),
     (sym__type_name, STATE 2663), (sym__formal_parameter_part, STATE 2358),
     (sym_formal_parameter_list, STATE 2020), (sym__strict_formal_parameter_list, STATE 2016),
     (sym__new_builtin, STATE 2074), (sym_this, STATE 1135), (sym_super, STATE 1344),
     (sym_comment, STATE 214), (sym_documentation_comment, STATE 214),
     (aux_sym_string_literal_repeat1, STATE 595), (sym_identifier, ACTIONS 696),
     (anon_sym_POUND, ACTIONS 698), (sym_decimal_integer_literal, ACTIONS 700),
     (sym_hex_integer_literal, ACTIONS 702), (sym_decimal_floating_point_literal, ACTIONS 700),
     (anon_sym_true, ACTIONS 704), (anon_sym_false, ACTIONS 706), (anon_sym_DQUOTE, ACTIONS 708),
     (anon_sym_SQUOTE, ACTIONS 710), (anon_sym_DQUOTE_DQUOTE_DQUOTE, ACTIONS 712),
     (anon_sym_SQUOTE_SQUOTE_SQUOTE, ACTIONS 714), (anon_sym_r_DQUOTE, ACTIONS 716),
     (anon_sym_r_SQUOTE, ACTIONS 718), (anon_sym_r_DQUOTE_DQUOTE_DQUOTE, ACTIONS 720),
     (anon_sym_r_SQUOTE_SQUOTE_SQUOTE, ACTIONS 722), (anon_sym_LBRACE, ACTIONS 724),
     (anon_sym_LBRACK, ACTIONS 726), (anon_sym_null, ACTIONS 728),
     (anon_sym_LPAREN, ACTIONS 730), (anon_sym_throw, ACTIONS 732), (anon_sym_LT, ACTIONS 111),
     (sym_increment_operator, ACTIONS 734), (sym_minus_operator, ACTIONS 736),
     (anon_sym_BANG, ACTIONS 119), (anon_sym_TILDE, ACTIONS 121), (anon_sym_await, ACTIONS 738),
     (anon_sym_switch, ACTIONS 740), (sym_rethrow_builtin, ACTIONS 742),
     (anon_sym_new, ACTIONS 155), (sym_const_builtin, ACTIONS 744), (anon_sym_this, ACTIONS 746),
     (anon_sym_super, ACTIONS 161), (anon_sym_SLASH_SLASH, ACTIONS 3),
     (anon_sym_SLASH_STAR, ACTIONS 5), (anon_sym_SLASH_SLASH_SLASH, ACTIONS 7),
     (sym__block_comment, ACTIONS 9), (sym__documentation_block_comment, ACTIONS 11)]"

lemma row_ok_214: "table_row_ok 214 ts_parse_table_214"
  by (simp add: row_simps ts_parse_table_214_def)

definition ts_parse_table_215 :: table_row where
  "ts_parse_table_215 = [
     (sym__bool_literal, STATE 989), (sym__numeric_literal, STATE 989),
     (sym__literal, STATE 962), (sym_symbol_literal, STATE 989), (sym_true, STATE 900),
     (sym_false, STATE 900), (sym_string_literal, STATE 989),
     (sym__string_literal_double_quotes, STATE 627),
     (sym__string_literal_single_quotes, STATE 627),
     (sym__string_literal_double_quotes_multiple, STATE 627),
     (sym__string_literal_single_quotes_multiple, STATE 627),
     (sym__raw_string_literal_double_quotes, STATE 627),
     (sym__raw_string_literal_single_quotes, STATE 627),
     (sym__raw_string_literal_double_quotes_multiple, STATE 627),
     (sym__raw_string_literal_single_quotes_multiple, STATE 627), (sym_list_literal, STATE 989),
     (sym_set_or_map_literal, STATE 989), (sym_null_literal, STATE 989),
     (sym_record_literal, STATE 989), (sym__record_literal_no_const, STATE 924),
     (sym__expression, STATE 3398), (sym__real_expression, STATE 660),
     (sym_throw_expression, STATE 908), (sym_rethrow_expression, STATE 908),
     (sym_assignment_expression, STATE 908), (sym_assignable_expression, STATE 1940),
     (sym_function_expression, STATE 962), (sym_if_null_expression, STATE 1477),
     (sym_conditional_expression, STATE 1477), (sym_logical_or_expression, STATE 1477),
     (sym_logical_and_expression, STATE 1477), (sym_equality_expression, STATE 1477),
     (sym_type_cast_expression, STATE 1477), (sym_type_test_expression, STATE 1477),
     (sym_relational_expression, STATE 1477), (sym_bitwise_or_expression, STATE 1477),
     (sym_bitwise_xor_expression, STATE 1477), (sym_bitwise_and_expression, STATE 1477),
     (sym_shift_expression, STATE 1477), (sym_additive_expression, STATE 1477),
     (sym_multiplicative_expression, STATE 1477), (sym__unary_expression, STATE 1121),
     (sym_unary_expression, STATE 1303), (sym__postfix_expression, STATE 1303),
     (sym_postfix_expression, STATE 1301), (sym_prefix_operator, STATE 431),
     (sym_negation_operator, STATE 1450), (sym__exclamation_operator, STATE 1451),
     (sym_tilde_operator, STATE 1385), (sym_await_expression, STATE 1302),
     (sym_new_expression, STATE 962), (sym_const_object_expression, STATE 962),
     (sym__primary, STATE 668), (sym_parenthesized_expression, STATE 962),
     (sym_constructor_invocation, STATE 643), (sym_constructor_tearoff, STATE 962),
     (sym_type_arguments, STATE 3200), (sym_switch_expression, STATE 962),
     (sym__parenthesized_pattern, STATE 3182), (sym_list_pattern, STATE 3182),
     (sym_map_pattern, STATE 3182), (sym_record_pattern, STATE 3182),
     (sym_object_pattern, STATE 3182), (sym__outer_pattern, STATE 3410),
     (sym_pattern_assignment, STATE 908), (sym_type_parameters, STATE 2932),
     (sym__type_name, STATE 2661), (sym__formal_parameter_part, STATE 2339),
     (sym_formal_parameter_list, STATE 2020), (sym__strict_formal_parameter_list, STATE 2016),
     (sym__new_builtin, STATE 2079), (sym_this, STATE 962), (sym_super, STATE 1337),
     (sym_comment, STATE 215), (sym_documentation_comment, STATE 215),
     (aux_sym_string_literal_repeat1, STATE 474), (sym_identifier, ACTIONS 494),
     (anon_sym_POUND, ACTIONS 73), (sym_decimal_integer_literal, ACTIONS 75),
     (sym_hex_integer_literal, ACTIONS 77), (sym_decimal_floating_point_literal, ACTIONS 75),
     (anon_sym_true, ACTIONS 79), (anon_sym_false, ACTIONS 81), (anon_sym_DQUOTE, ACTIONS 83),
     (anon_sym_SQUOTE, ACTIONS 85), (anon_sym_DQUOTE_DQUOTE_DQUOTE, ACTIONS 87),
     (anon_sym_SQUOTE_SQUOTE_SQUOTE, ACTIONS 89), (anon_sym_r_DQUOTE, ACTIONS 91),
     (anon_sym_r_SQUOTE, ACTIONS 93), (anon_sym_r_DQUOTE_DQUOTE_DQUOTE, ACTIONS 95),
     (anon_sym_r_SQUOTE_SQUOTE_SQUOTE, ACTIONS 97), (anon_sym_LBRACE, ACTIONS 442),
     (anon_sym_LBRACK, ACTIONS 103), (anon_sym_null, ACTIONS 105),
     (anon_sym_LPAREN, ACTIONS 498), (anon_sym_throw, ACTIONS 109), (anon_sym_LT, ACTIONS 111),
     (sym_increment_operator, ACTIONS 113), (sym_minus_operator, ACTIONS 117),
     (anon_sym_BANG, ACTIONS 119), (anon_sym_TILDE, ACTIONS 121), (anon_sym_await, ACTIONS 432),
     (anon_sym_switch, ACTIONS 412), (sym_rethrow_builtin, ACTIONS 151),
     (anon_sym_new, ACTIONS 155), (sym_const_builtin, ACTIONS 478), (anon_sym_this, ACTIONS 159),
     (anon_sym_super, ACTIONS 161), (anon_sym_SLASH_SLASH, ACTIONS 3),
     (anon_sym_SLASH_STAR, ACTIONS 5), (anon_sym_SLASH_SLASH_SLASH, ACTIONS 7),
     (sym__block_comment, ACTIONS 9), (sym__documentation_block_comment, ACTIONS 11)]"

lemma row_ok_215: "table_row_ok 215 ts_parse_table_215"
  by (simp add: row_simps ts_parse_table_215_def)

definition ts_parse_table_216 :: table_row where
  "ts_parse_table_216 = [
     (sym__bool_literal, STATE 989), (sym__numeric_literal, STATE 989),
     (sym__literal, STATE 962), (sym_symbol_literal, STATE 989), (sym_true, STATE 900),
     (sym_false, STATE 900), (sym_string_literal, STATE 989),
     (sym__string_literal_double_quotes, STATE 627),
     (sym__string_literal_single_quotes, STATE 627),
     (sym__string_literal_double_quotes_multiple, STATE 627),
     (sym__string_literal_single_quotes_multiple, STATE 627),
     (sym__raw_string_literal_double_quotes, STATE 627),
     (sym__raw_string_literal_single_quotes, STATE 627),
     (sym__raw_string_literal_double_quotes_multiple, STATE 627),
     (sym__raw_string_literal_single_quotes_multiple, STATE 627), (sym_list_literal, STATE 989),
     (sym_set_or_map_literal, STATE 989), (sym_null_literal, STATE 989),
     (sym_record_literal, STATE 989), (sym__record_literal_no_const, STATE 924),
     (sym__expression, STATE 3393), (sym__real_expression, STATE 660),
     (sym_throw_expression, STATE 908), (sym_rethrow_expression, STATE 908),
     (sym_assignment_expression, STATE 908), (sym_assignable_expression, STATE 1940),
     (sym_function_expression, STATE 962), (sym_if_null_expression, STATE 1477),
     (sym_conditional_expression, STATE 1477), (sym_logical_or_expression, STATE 1477),
     (sym_logical_and_expression, STATE 1477), (sym_equality_expression, STATE 1477),
     (sym_type_cast_expression, STATE 1477), (sym_type_test_expression, STATE 1477),
     (sym_relational_expression, STATE 1477), (sym_bitwise_or_expression, STATE 1477),
     (sym_bitwise_xor_expression, STATE 1477), (sym_bitwise_and_expression, STATE 1477),
     (sym_shift_expression, STATE 1477), (sym_additive_expression, STATE 1477),
     (sym_multiplicative_expression, STATE 1477), (sym__unary_expression, STATE 1121),
     (sym_unary_expression, STATE 1303), (sym__postfix_expression, STATE 1303),
     (sym_postfix_expression, STATE 1301), (sym_prefix_operator, STATE 431),
     (sym_negation_operator, STATE 1450), (sym__exclamation_operator, STATE 1451),
     (sym_tilde_operator, STATE 1385), (sym_await_expression, STATE 1302),
     (sym_new_expression, STATE 962), (sym_const_object_expression, STATE 962),
     (sym__primary, STATE 668), (sym_parenthesized_expression, STATE 962),
     (sym_constructor_invocation, STATE 643), (sym_constructor_tearoff, STATE 962),
     (sym_type_arguments, STATE 3200), (sym_switch_expression, STATE 962),
     (sym__parenthesized_pattern, STATE 3182), (sym_list_pattern, STATE 3182),
     (sym_map_pattern, STATE 3182), (sym_record_pattern, STATE 3182),
     (sym_object_pattern, STATE 3182), (sym__outer_pattern, STATE 3410),
     (sym_pattern_assignment, STATE 908), (sym_type_parameters, STATE 2932),
     (sym__type_name, STATE 2661), (sym__formal_parameter_part, STATE 2339),
     (sym_formal_parameter_list, STATE 2020), (sym__strict_formal_parameter_list, STATE 2016),
     (sym__new_builtin, STATE 2079), (sym_this, STATE 962), (sym_super, STATE 1337),
     (sym_comment, STATE 216), (sym_documentation_comment, STATE 216),
     (aux_sym_string_literal_repeat1, STATE 474), (sym_identifier, ACTIONS 494),
     (anon_sym_POUND, ACTIONS 73), (sym_decimal_integer_literal, ACTIONS 75),
     (sym_hex_integer_literal, ACTIONS 77), (sym_decimal_floating_point_literal, ACTIONS 75),
     (anon_sym_true, ACTIONS 79), (anon_sym_false, ACTIONS 81), (anon_sym_DQUOTE, ACTIONS 83),
     (anon_sym_SQUOTE, ACTIONS 85), (anon_sym_DQUOTE_DQUOTE_DQUOTE, ACTIONS 87),
     (anon_sym_SQUOTE_SQUOTE_SQUOTE, ACTIONS 89), (anon_sym_r_DQUOTE, ACTIONS 91),
     (anon_sym_r_SQUOTE, ACTIONS 93), (anon_sym_r_DQUOTE_DQUOTE_DQUOTE, ACTIONS 95),
     (anon_sym_r_SQUOTE_SQUOTE_SQUOTE, ACTIONS 97), (anon_sym_LBRACE, ACTIONS 442),
     (anon_sym_LBRACK, ACTIONS 103), (anon_sym_null, ACTIONS 105),
     (anon_sym_LPAREN, ACTIONS 498), (anon_sym_throw, ACTIONS 109), (anon_sym_LT, ACTIONS 111),
     (sym_increment_operator, ACTIONS 113), (sym_minus_operator, ACTIONS 117),
     (anon_sym_BANG, ACTIONS 119), (anon_sym_TILDE, ACTIONS 121), (anon_sym_await, ACTIONS 432),
     (anon_sym_switch, ACTIONS 412), (sym_rethrow_builtin, ACTIONS 151),
     (anon_sym_new, ACTIONS 155), (sym_const_builtin, ACTIONS 478), (anon_sym_this, ACTIONS 159),
     (anon_sym_super, ACTIONS 161), (anon_sym_SLASH_SLASH, ACTIONS 3),
     (anon_sym_SLASH_STAR, ACTIONS 5), (anon_sym_SLASH_SLASH_SLASH, ACTIONS 7),
     (sym__block_comment, ACTIONS 9), (sym__documentation_block_comment, ACTIONS 11)]"

lemma row_ok_216: "table_row_ok 216 ts_parse_table_216"
  by (simp add: row_simps ts_parse_table_216_def)

definition ts_parse_table_217 :: table_row where
  "ts_parse_table_217 = [
     (sym__bool_literal, STATE 989), (sym__numeric_literal, STATE 989),
     (sym__literal, STATE 962), (sym_symbol_literal, STATE 989), (sym_true, STATE 900),
     (sym_false, STATE 900), (sym_string_literal, STATE 989),
     (sym__string_literal_double_quotes, STATE 627),
     (sym__string_literal_single_quotes, STATE 627),
     (sym__string_literal_double_quotes_multiple, STATE 627),
     (sym__string_literal_single_quotes_multiple, STATE 627),
     (sym__raw_string_literal_double_quotes, STATE 627),
     (sym__raw_string_literal_single_quotes, STATE 627),
     (sym__raw_string_literal_double_quotes_multiple, STATE 627),
     (sym__raw_string_literal_single_quotes_multiple, STATE 627), (sym_list_literal, STATE 989),
     (sym_set_or_map_literal, STATE 989), (sym_null_literal, STATE 989),
     (sym_record_literal, STATE 989), (sym__record_literal_no_const, STATE 924),
     (sym__expression, STATE 3388), (sym__real_expression, STATE 660),
     (sym_throw_expression, STATE 908), (sym_rethrow_expression, STATE 908),
     (sym_assignment_expression, STATE 908), (sym_assignable_expression, STATE 1940),
     (sym_function_expression, STATE 962), (sym_if_null_expression, STATE 1477),
     (sym_conditional_expression, STATE 1477), (sym_logical_or_expression, STATE 1477),
     (sym_logical_and_expression, STATE 1477), (sym_equality_expression, STATE 1477),
     (sym_type_cast_expression, STATE 1477), (sym_type_test_expression, STATE 1477),
     (sym_relational_expression, STATE 1477), (sym_bitwise_or_expression, STATE 1477),
     (sym_bitwise_xor_expression, STATE 1477), (sym_bitwise_and_expression, STATE 1477),
     (sym_shift_expression, STATE 1477), (sym_additive_expression, STATE 1477),
     (sym_multiplicative_expression, STATE 1477), (sym__unary_expression, STATE 1121),
     (sym_unary_expression, STATE 1303), (sym__postfix_expression, STATE 1303),
     (sym_postfix_expression, STATE 1301), (sym_prefix_operator, STATE 431),
     (sym_negation_operator, STATE 1450), (sym__exclamation_operator, STATE 1451),
     (sym_tilde_operator, STATE 1385), (sym_await_expression, STATE 1302),
     (sym_new_expression, STATE 962), (sym_const_object_expression, STATE 962),
     (sym__primary, STATE 668), (sym_parenthesized_expression, STATE 962),
     (sym_constructor_invocation, STATE 643), (sym_constructor_tearoff, STATE 962),
     (sym_type_arguments, STATE 3200), (sym_switch_expression, STATE 962),
     (sym__parenthesized_pattern, STATE 3182), (sym_list_pattern, STATE 3182),
     (sym_map_pattern, STATE 3182), (sym_record_pattern, STATE 3182),
     (sym_object_pattern, STATE 3182), (sym__outer_pattern, STATE 3410),
     (sym_pattern_assignment, STATE 908), (sym_type_parameters, STATE 2932),
     (sym__type_name, STATE 2661), (sym__formal_parameter_part, STATE 2339),
     (sym_formal_parameter_list, STATE 2020), (sym__strict_formal_parameter_list, STATE 2016),
     (sym__new_builtin, STATE 2079), (sym_this, STATE 962), (sym_super, STATE 1337),
     (sym_comment, STATE 217), (sym_documentation_comment, STATE 217),
     (aux_sym_string_literal_repeat1, STATE 474), (sym_identifier, ACTIONS 494),
     (anon_sym_POUND, ACTIONS 73), (sym_decimal_integer_literal, ACTIONS 75),
     (sym_hex_integer_literal, ACTIONS 77), (sym_decimal_floating_point_literal, ACTIONS 75),
     (anon_sym_true, ACTIONS 79), (anon_sym_false, ACTIONS 81), (anon_sym_DQUOTE, ACTIONS 83),
     (anon_sym_SQUOTE, ACTIONS 85), (anon_sym_DQUOTE_DQUOTE_DQUOTE, ACTIONS 87),
     (anon_sym_SQUOTE_SQUOTE_SQUOTE, ACTIONS 89), (anon_sym_r_DQUOTE, ACTIONS 91),
     (anon_sym_r_SQUOTE, ACTIONS 93), (anon_sym_r_DQUOTE_DQUOTE_DQUOTE, ACTIONS 95),
     (anon_sym_r_SQUOTE_SQUOTE_SQUOTE, ACTIONS 97), (anon_sym_LBRACE, ACTIONS 442),
     (anon_sym_LBRACK, ACTIONS 103), (anon_sym_null, ACTIONS 105),
     (anon_sym_LPAREN, ACTIONS 498), (anon_sym_throw, ACTIONS 109), (anon_sym_LT, ACTIONS 111),
     (sym_increment_operator, ACTIONS 113), (sym_minus_operator, ACTIONS 117),
     (anon_sym_BANG, ACTIONS 119), (anon_sym_TILDE, ACTIONS 121), (anon_sym_await, ACTIONS 432),
     (anon_sym_switch, ACTIONS 412), (sym_rethrow_builtin, ACTIONS 151),
     (anon_sym_new, ACTIONS 155), (sym_const_builtin, ACTIONS 478), (anon_sym_this, ACTIONS 159),
     (anon_sym_super, ACTIONS 161), (anon_sym_SLASH_SLASH, ACTIONS 3),
     (anon_sym_SLASH_STAR, ACTIONS 5), (anon_sym_SLASH_SLASH_SLASH, ACTIONS 7),
     (sym__block_comment, ACTIONS 9), (sym__documentation_block_comment, ACTIONS 11)]"

lemma row_ok_217: "table_row_ok 217 ts_parse_table_217"
  by (simp add: row_simps ts_parse_table_217_def)

definition ts_parse_table_218 :: table_row where
  "ts_parse_table_218 = [
     (sym__bool_literal, STATE 989), (sym__numeric_literal, STATE 989),
     (sym__literal, STATE 962), (sym_symbol_literal, STATE 989), (sym_true, STATE 900),
     (sym_false, STATE 900), (sym_string_literal, STATE 989),
     (sym__string_literal_double_quotes, STATE 627),
     (sym__string_literal_single_quotes, STATE 627),
     (sym__string_literal_double_quotes_multiple, STATE 627),
     (sym__string_literal_single_quotes_multiple, STATE 627),
     (sym__raw_string_literal_double_quotes, STATE 627),
     (sym__raw_string_literal_single_quotes, STATE 627),
     (sym__raw_string_literal_double_quotes_multiple, STATE 627),
     (sym__raw_string_literal_single_quotes_multiple, STATE 627), (sym_list_literal, STATE 989),
     (sym_set_or_map_literal, STATE 989), (sym_null_literal, STATE 989),
     (sym_record_literal, STATE 989), (sym__record_literal_no_const, STATE 924),
     (sym__expression, STATE 3180), (sym__real_expression, STATE 660),
     (sym_throw_expression, STATE 908), (sym_rethrow_expression, STATE 908),
     (sym_assignment_expression, STATE 908), (sym_assignable_expression, STATE 1940),
     (sym_function_expression, STATE 962), (sym_if_null_expression, STATE 1477),
     (sym_conditional_expression, STATE 1477), (sym_logical_or_expression, STATE 1477),
     (sym_logical_and_expression, STATE 1477), (sym_equality_expression, STATE 1477),
     (sym_type_cast_expression, STATE 1477), (sym_type_test_expression, STATE 1477),
     (sym_relational_expression, STATE 1477), (sym_bitwise_or_expression, STATE 1477),
     (sym_bitwise_xor_expression, STATE 1477), (sym_bitwise_and_expression, STATE 1477),
     (sym_shift_expression, STATE 1477), (sym_additive_expression, STATE 1477),
     (sym_multiplicative_expression, STATE 1477), (sym__unary_expression, STATE 1121),
     (sym_unary_expression, STATE 1303), (sym__postfix_expression, STATE 1303),
     (sym_postfix_expression, STATE 1301), (sym_prefix_operator, STATE 431),
     (sym_negation_operator, STATE 1450), (sym__exclamation_operator, STATE 1451),
     (sym_tilde_operator, STATE 1385), (sym_await_expression, STATE 1302),
     (sym_new_expression, STATE 962), (sym_const_object_expression, STATE 962),
     (sym__primary, STATE 668), (sym_parenthesized_expression, STATE 962),
     (sym_constructor_invocation, STATE 643), (sym_constructor_tearoff, STATE 962),
     (sym_type_arguments, STATE 3200), (sym_switch_expression, STATE 962),
     (sym__parenthesized_pattern, STATE 3182), (sym_list_pattern, STATE 3182),
     (sym_map_pattern, STATE 3182), (sym_record_pattern, STATE 3182),
     (sym_object_pattern, STATE 3182), (sym__outer_pattern, STATE 3410),
     (sym_pattern_assignment, STATE 908), (sym_type_parameters, STATE 2932),
     (sym__type_name, STATE 2661), (sym__formal_parameter_part, STATE 2339),
     (sym_formal_parameter_list, STATE 2020), (sym__strict_formal_parameter_list, STATE 2016),
     (sym__new_builtin, STATE 2079), (sym_this, STATE 962), (sym_super, STATE 1337),
     (sym_comment, STATE 218), (sym_documentation_comment, STATE 218),
     (aux_sym_string_literal_repeat1, STATE 474), (sym_identifier, ACTIONS 494),
     (anon_sym_POUND, ACTIONS 73), (sym_decimal_integer_literal, ACTIONS 75),
     (sym_hex_integer_literal, ACTIONS 77), (sym_decimal_floating_point_literal, ACTIONS 75),
     (anon_sym_true, ACTIONS 79), (anon_sym_false, ACTIONS 81), (anon_sym_DQUOTE, ACTIONS 83),
     (anon_sym_SQUOTE, ACTIONS 85), (anon_sym_DQUOTE_DQUOTE_DQUOTE, ACTIONS 87),
     (anon_sym_SQUOTE_SQUOTE_SQUOTE, ACTIONS 89), (anon_sym_r_DQUOTE, ACTIONS 91),
     (anon_sym_r_SQUOTE, ACTIONS 93), (anon_sym_r_DQUOTE_DQUOTE_DQUOTE, ACTIONS 95),
     (anon_sym_r_SQUOTE_SQUOTE_SQUOTE, ACTIONS 97), (anon_sym_LBRACE, ACTIONS 442),
     (anon_sym_LBRACK, ACTIONS 103), (anon_sym_null, ACTIONS 105),
     (anon_sym_LPAREN, ACTIONS 498), (anon_sym_throw, ACTIONS 109), (anon_sym_LT, ACTIONS 111),
     (sym_increment_operator, ACTIONS 113), (sym_minus_operator, ACTIONS 117),
     (anon_sym_BANG, ACTIONS 119), (anon_sym_TILDE, ACTIONS 121), (anon_sym_await, ACTIONS 432),
     (anon_sym_switch, ACTIONS 412), (sym_rethrow_builtin, ACTIONS 151),
     (anon_sym_new, ACTIONS 155), (sym_const_builtin, ACTIONS 478), (anon_sym_this, ACTIONS 159),
     (anon_sym_super, ACTIONS 161), (anon_sym_SLASH_SLASH, ACTIONS 3),
     (anon_sym_SLASH_STAR, ACTIONS 5), (anon_sym_SLASH_SLASH_SLASH, ACTIONS 7),
     (sym__block_comment, ACTIONS 9), (sym__documentation_block_comment, ACTIONS 11)]"

lemma row_ok_218: "table_row_ok 218 ts_parse_table_218"
  by (simp add: row_simps ts_parse_table_218_def)

definition ts_parse_table_219 :: table_row where
  "ts_parse_table_219 = [
     (sym__bool_literal, STATE 989), (sym__numeric_literal, STATE 989),
     (sym__literal, STATE 962), (sym_symbol_literal, STATE 989), (sym_true, STATE 900),
     (sym_false, STATE 900), (sym_string_literal, STATE 989),
     (sym__string_literal_double_quotes, STATE 627),
     (sym__string_literal_single_quotes, STATE 627),
     (sym__string_literal_double_quotes_multiple, STATE 627),
     (sym__string_literal_single_quotes_multiple, STATE 627),
     (sym__raw_string_literal_double_quotes, STATE 627),
     (sym__raw_string_literal_single_quotes, STATE 627),
     (sym__raw_string_literal_double_quotes_multiple, STATE 627),
     (sym__raw_string_literal_single_quotes_multiple, STATE 627), (sym_list_literal, STATE 989),
     (sym_set_or_map_literal, STATE 989), (sym_null_literal, STATE 989),
     (sym_record_literal, STATE 989), (sym__record_literal_no_const, STATE 924),
     (sym__expression, STATE 3446), (sym__real_expression, STATE 660),
     (sym_throw_expression, STATE 908), (sym_rethrow_expression, STATE 908),
     (sym_assignment_expression, STATE 908), (sym_assignable_expression, STATE 1940),
     (sym_function_expression, STATE 962), (sym_if_null_expression, STATE 1477),
     (sym_conditional_expression, STATE 1477), (sym_logical_or_expression, STATE 1477),
     (sym_logical_and_expression, STATE 1477), (sym_equality_expression, STATE 1477),
     (sym_type_cast_expression, STATE 1477), (sym_type_test_expression, STATE 1477),
     (sym_relational_expression, STATE 1477), (sym_bitwise_or_expression, STATE 1477),
     (sym_bitwise_xor_expression, STATE 1477), (sym_bitwise_and_expression, STATE 1477),
     (sym_shift_expression, STATE 1477), (sym_additive_expression, STATE 1477),
     (sym_multiplicative_expression, STATE 1477), (sym__unary_expression, STATE 1121),
     (sym_unary_expression, STATE 1303), (sym__postfix_expression, STATE 1303),
     (sym_postfix_expression, STATE 1301), (sym_prefix_operator, STATE 431),
     (sym_negation_operator, STATE 1450), (sym__exclamation_operator, STATE 1451),
     (sym_tilde_operator, STATE 1385), (sym_await_expression, STATE 1302),
     (sym_new_expression, STATE 962), (sym_const_object_expression, STATE 962),
     (sym__primary, STATE 668), (sym_parenthesized_expression, STATE 962),
     (sym_constructor_invocation, STATE 643), (sym_constructor_tearoff, STATE 962),
     (sym_type_arguments, STATE 3200), (sym_switch_expression, STATE 962),
     (sym__parenthesized_pattern, STATE 3182), (sym_list_pattern, STATE 3182),
     (sym_map_pattern, STATE 3182), (sym_record_pattern, STATE 3182),
     (sym_object_pattern, STATE 3182), (sym__outer_pattern, STATE 3410),
     (sym_pattern_assignment, STATE 908), (sym_type_parameters, STATE 2932),
     (sym__type_name, STATE 2661), (sym__formal_parameter_part, STATE 2339),
     (sym_formal_parameter_list, STATE 2020), (sym__strict_formal_parameter_list, STATE 2016),
     (sym__new_builtin, STATE 2079), (sym_this, STATE 962), (sym_super, STATE 1337),
     (sym_comment, STATE 219), (sym_documentation_comment, STATE 219),
     (aux_sym_string_literal_repeat1, STATE 474), (sym_identifier, ACTIONS 494),
     (anon_sym_POUND, ACTIONS 73), (sym_decimal_integer_literal, ACTIONS 75),
     (sym_hex_integer_literal, ACTIONS 77), (sym_decimal_floating_point_literal, ACTIONS 75),
     (anon_sym_true, ACTIONS 79), (anon_sym_false, ACTIONS 81), (anon_sym_DQUOTE, ACTIONS 83),
     (anon_sym_SQUOTE, ACTIONS 85), (anon_sym_DQUOTE_DQUOTE_DQUOTE, ACTIONS 87),
     (anon_sym_SQUOTE_SQUOTE_SQUOTE, ACTIONS 89), (anon_sym_r_DQUOTE, ACTIONS 91),
     (anon_sym_r_SQUOTE, ACTIONS 93), (anon_sym_r_DQUOTE_DQUOTE_DQUOTE, ACTIONS 95),
     (anon_sym_r_SQUOTE_SQUOTE_SQUOTE, ACTIONS 97), (anon_sym_LBRACE, ACTIONS 442),
     (anon_sym_LBRACK, ACTIONS 103), (anon_sym_null, ACTIONS 105),
     (anon_sym_LPAREN, ACTIONS 498), (anon_sym_throw, ACTIONS 109), (anon_sym_LT, ACTIONS 111),
     (sym_increment_operator, ACTIONS 113), (sym_minus_operator, ACTIONS 117),
     (anon_sym_BANG, ACTIONS 119), (anon_sym_TILDE, ACTIONS 121), (anon_sym_await, ACTIONS 432),
     (anon_sym_switch, ACTIONS 412), (sym_rethrow_builtin, ACTIONS 151),
     (anon_sym_new, ACTIONS 155), (sym_const_builtin, ACTIONS 478), (anon_sym_this, ACTIONS 159),
     (anon_sym_super, ACTIONS 161), (anon_sym_SLASH_SLASH, ACTIONS 3),
     (anon_sym_SLASH_STAR, ACTIONS 5), (anon_sym_SLASH_SLASH_SLASH, ACTIONS 7),
     (sym__block_comment, ACTIONS 9), (sym__documentation_block_comment, ACTIONS 11)]"

lemma row_ok_219: "table_row_ok 219 ts_parse_table_219"
  by (simp add: row_simps ts_parse_table_219_def)

definition ts_parse_table_220 :: table_row where
  "ts_parse_table_220 = [
     (sym__bool_literal, STATE 989), (sym__numeric_literal, STATE 989),
     (sym__literal, STATE 962), (sym_symbol_literal, STATE 989), (sym_true, STATE 900),
     (sym_false, STATE 900), (sym_string_literal, STATE 989),
     (sym__string_literal_double_quotes, STATE 627),
     (sym__string_literal_single_quotes, STATE 627),
     (sym__string_literal_double_quotes_multiple, STATE 627),
     (sym__string_literal_single_quotes_multiple, STATE 627),
     (sym__raw_string_literal_double_quotes, STATE 627),
     (sym__raw_string_literal_single_quotes, STATE 627),
     (sym__raw_string_literal_double_quotes_multiple, STATE 627),
     (sym__raw_string_literal_single_quotes_multiple, STATE 627), (sym_list_literal, STATE 989),
     (sym_set_or_map_literal, STATE 989), (sym_null_literal, STATE 989),
     (sym_record_literal, STATE 989), (sym__record_literal_no_const, STATE 924),
     (sym__expression, STATE 3487), (sym__real_expression, STATE 660),
     (sym_throw_expression, STATE 908), (sym_rethrow_expression, STATE 908),
     (sym_assignment_expression, STATE 908), (sym_assignable_expression, STATE 1940),
     (sym_function_expression, STATE 962), (sym_if_null_expression, STATE 1477),
     (sym_conditional_expression, STATE 1477), (sym_logical_or_expression, STATE 1477),
     (sym_logical_and_expression, STATE 1477), (sym_equality_expression, STATE 1477),
     (sym_type_cast_expression, STATE 1477), (sym_type_test_expression, STATE 1477),
     (sym_relational_expression, STATE 1477), (sym_bitwise_or_expression, STATE 1477),
     (sym_bitwise_xor_expression, STATE 1477), (sym_bitwise_and_expression, STATE 1477),
     (sym_shift_expression, STATE 1477), (sym_additive_expression, STATE 1477),
     (sym_multiplicative_expression, STATE 1477), (sym__unary_expression, STATE 1121),
     (sym_unary_expression, STATE 1303), (sym__postfix_expression, STATE 1303),
     (sym_postfix_expression, STATE 1301), (sym_prefix_operator, STATE 431),
     (sym_negation_operator, STATE 1450), (sym__exclamation_operator, STATE 1451),
     (sym_tilde_operator, STATE 1385), (sym_await_expression, STATE 1302),
     (sym_new_expression, STATE 962), (sym_const_object_expression, STATE 962),
     (sym__primary, STATE 668), (sym_parenthesized_expression, STATE 962),
     (sym_constructor_invocation, STATE 643), (sym_constructor_tearoff, STATE 962),
     (sym_type_arguments, STATE 3200), (sym_switch_expression, STATE 962),
     (sym__parenthesized_pattern, STATE 3182), (sym_list_pattern, STATE 3182),
     (sym_map_pattern, STATE 3182), (sym_record_pattern, STATE 3182),
     (sym_object_pattern, STATE 3182), (sym__outer_pattern, STATE 3410),
     (sym_pattern_assignment, STATE 908), (sym_type_parameters, STATE 2932),
     (sym__type_name, STATE 2661), (sym__formal_parameter_part, STATE 2339),
     (sym_formal_parameter_list, STATE 2020), (sym__strict_formal_parameter_list, STATE 2016),
     (sym__new_builtin, STATE 2079), (sym_this, STATE 962), (sym_super, STATE 1337),
     (sym_comment, STATE 220), (sym_documentation_comment, STATE 220),
     (aux_sym_string_literal_repeat1, STATE 474), (sym_identifier, ACTIONS 494),
     (anon_sym_POUND, ACTIONS 73), (sym_decimal_integer_literal, ACTIONS 75),
     (sym_hex_integer_literal, ACTIONS 77), (sym_decimal_floating_point_literal, ACTIONS 75),
     (anon_sym_true, ACTIONS 79), (anon_sym_false, ACTIONS 81), (anon_sym_DQUOTE, ACTIONS 83),
     (anon_sym_SQUOTE, ACTIONS 85), (anon_sym_DQUOTE_DQUOTE_DQUOTE, ACTIONS 87),
     (anon_sym_SQUOTE_SQUOTE_SQUOTE, ACTIONS 89), (anon_sym_r_DQUOTE, ACTIONS 91),
     (anon_sym_r_SQUOTE, ACTIONS 93), (anon_sym_r_DQUOTE_DQUOTE_DQUOTE, ACTIONS 95),
     (anon_sym_r_SQUOTE_SQUOTE_SQUOTE, ACTIONS 97), (anon_sym_LBRACE, ACTIONS 442),
     (anon_sym_LBRACK, ACTIONS 103), (anon_sym_null, ACTIONS 105),
     (anon_sym_LPAREN, ACTIONS 498), (anon_sym_throw, ACTIONS 109), (anon_sym_LT, ACTIONS 111),
     (sym_increment_operator, ACTIONS 113), (sym_minus_operator, ACTIONS 117),
     (anon_sym_BANG, ACTIONS 119), (anon_sym_TILDE, ACTIONS 121), (anon_sym_await, ACTIONS 432),
     (anon_sym_switch, ACTIONS 412), (sym_rethrow_builtin, ACTIONS 151),
     (anon_sym_new, ACTIONS 155), (sym_const_builtin, ACTIONS 478), (anon_sym_this, ACTIONS 159),
     (anon_sym_super, ACTIONS 161), (anon_sym_SLASH_SLASH, ACTIONS 3),
     (anon_sym_SLASH_STAR, ACTIONS 5), (anon_sym_SLASH_SLASH_SLASH, ACTIONS 7),
     (sym__block_comment, ACTIONS 9), (sym__documentation_block_comment, ACTIONS 11)]"

lemma row_ok_220: "table_row_ok 220 ts_parse_table_220"
  by (simp add: row_simps ts_parse_table_220_def)

definition ts_parse_table_221 :: table_row where
  "ts_parse_table_221 = [
     (sym__bool_literal, STATE 989), (sym__numeric_literal, STATE 989),
     (sym__literal, STATE 962), (sym_symbol_literal, STATE 989), (sym_true, STATE 900),
     (sym_false, STATE 900), (sym_string_literal, STATE 989),
     (sym__string_literal_double_quotes, STATE 627),
     (sym__string_literal_single_quotes, STATE 627),
     (sym__string_literal_double_quotes_multiple, STATE 627),
     (sym__string_literal_single_quotes_multiple, STATE 627),
     (sym__raw_string_literal_double_quotes, STATE 627),
     (sym__raw_string_literal_single_quotes, STATE 627),
     (sym__raw_string_literal_double_quotes_multiple, STATE 627),
     (sym__raw_string_literal_single_quotes_multiple, STATE 627), (sym_list_literal, STATE 989),
     (sym_set_or_map_literal, STATE 989), (sym_null_literal, STATE 989),
     (sym_record_literal, STATE 989), (sym__record_literal_no_const, STATE 924),
     (sym__expression, STATE 3381), (sym__real_expression, STATE 660),
     (sym_throw_expression, STATE 908), (sym_rethrow_expression, STATE 908),
     (sym_assignment_expression, STATE 908), (sym_assignable_expression, STATE 1940),
     (sym_function_expression, STATE 962), (sym_if_null_expression, STATE 1477),
     (sym_conditional_expression, STATE 1477), (sym_logical_or_expression, STATE 1477),
     (sym_logical_and_expression, STATE 1477), (sym_equality_expression, STATE 1477),
     (sym_type_cast_expression, STATE 1477), (sym_type_test_expression, STATE 1477),
     (sym_relational_expression, STATE 1477), (sym_bitwise_or_expression, STATE 1477),
     (sym_bitwise_xor_expression, STATE 1477), (sym_bitwise_and_expression, STATE 1477),
     (sym_shift_expression, STATE 1477), (sym_additive_expression, STATE 1477),
     (sym_multiplicative_expression, STATE 1477), (sym__unary_expression, STATE 1121),
     (sym_unary_expression, STATE 1303), (sym__postfix_expression, STATE 1303),
     (sym_postfix_expression, STATE 1301), (sym_prefix_operator, STATE 431),
     (sym_negation_operator, STATE 1450), (sym__exclamation_operator, STATE 1451),
     (sym_tilde_operator, STATE 1385), (sym_await_expression, STATE 1302),
     (sym_new_expression, STATE 962), (sym_const_object_expression, STATE 962),
     (sym__primary, STATE 668), (sym_parenthesized_expression, STATE 962),
     (sym_constructor_invocation, STATE 643), (sym_constructor_tearoff, STATE 962),
     (sym_type_arguments, STATE 3200), (sym_switch_expression, STATE 962),
     (sym__parenthesized_pattern, STATE 3182), (sym_list_pattern, STATE 3182),
     (sym_map_pattern, STATE 3182), (sym_record_pattern, STATE 3182),
     (sym_object_pattern, STATE 3182), (sym__outer_pattern, STATE 3410),
     (sym_pattern_assignment, STATE 908), (sym_type_parameters, STATE 2932),
     (sym__type_name, STATE 2661), (sym__formal_parameter_part, STATE 2339),
     (sym_formal_parameter_list, STATE 2020), (sym__strict_formal_parameter_list, STATE 2016),
     (sym__new_builtin, STATE 2079), (sym_this, STATE 962), (sym_super, STATE 1337),
     (sym_comment, STATE 221), (sym_documentation_comment, STATE 221),
     (aux_sym_string_literal_repeat1, STATE 474), (sym_identifier, ACTIONS 494),
     (anon_sym_POUND, ACTIONS 73), (sym_decimal_integer_literal, ACTIONS 75),
     (sym_hex_integer_literal, ACTIONS 77), (sym_decimal_floating_point_literal, ACTIONS 75),
     (anon_sym_true, ACTIONS 79), (anon_sym_false, ACTIONS 81), (anon_sym_DQUOTE, ACTIONS 83),
     (anon_sym_SQUOTE, ACTIONS 85), (anon_sym_DQUOTE_DQUOTE_DQUOTE, ACTIONS 87),
     (anon_sym_SQUOTE_SQUOTE_SQUOTE, ACTIONS 89), (anon_sym_r_DQUOTE, ACTIONS 91),
     (anon_sym_r_SQUOTE, ACTIONS 93), (anon_sym_r_DQUOTE_DQUOTE_DQUOTE, ACTIONS 95),
     (anon_sym_r_SQUOTE_SQUOTE_SQUOTE, ACTIONS 97), (anon_sym_LBRACE, ACTIONS 442),
     (anon_sym_LBRACK, ACTIONS 103), (anon_sym_null, ACTIONS 105),
     (anon_sym_LPAREN, ACTIONS 498), (anon_sym_throw, ACTIONS 109), (anon_sym_LT, ACTIONS 111),
     (sym_increment_operator, ACTIONS 113), (sym_minus_operator, ACTIONS 117),
     (anon_sym_BANG, ACTIONS 119), (anon_sym_TILDE, ACTIONS 121), (anon_sym_await, ACTIONS 432),
     (anon_sym_switch, ACTIONS 412), (sym_rethrow_builtin, ACTIONS 151),
     (anon_sym_new, ACTIONS 155), (sym_const_builtin, ACTIONS 478), (anon_sym_this, ACTIONS 159),
     (anon_sym_super, ACTIONS 161), (anon_sym_SLASH_SLASH, ACTIONS 3),
     (anon_sym_SLASH_STAR, ACTIONS 5), (anon_sym_SLASH_SLASH_SLASH, ACTIONS 7),
     (sym__block_comment, ACTIONS 9), (sym__documentation_block_comment, ACTIONS 11)]"

lemma row_ok_221: "table_row_ok 221 ts_parse_table_221"
  by (simp add: row_simps ts_parse_table_221_def)

definition ts_parse_table_222 :: table_row where
  "ts_parse_table_222 = [
     (sym__bool_literal, STATE 989), (sym__numeric_literal, STATE 989),
     (sym__literal, STATE 962), (sym_symbol_literal, STATE 989), (sym_true, STATE 900),
     (sym_false, STATE 900), (sym_string_literal, STATE 989),
     (sym__string_literal_double_quotes, STATE 627),
     (sym__string_literal_single_quotes, STATE 627),
     (sym__string_literal_double_quotes_multiple, STATE 627),
     (sym__string_literal_single_quotes_multiple, STATE 627),
     (sym__raw_string_literal_double_quotes, STATE 627),
     (sym__raw_string_literal_single_quotes, STATE 627),
     (sym__raw_string_literal_double_quotes_multiple, STATE 627),
     (sym__raw_string_literal_single_quotes_multiple, STATE 627), (sym_list_literal, STATE 989),
     (sym_set_or_map_literal, STATE 989), (sym_null_literal, STATE 989),
     (sym_record_literal, STATE 989), (sym__record_literal_no_const, STATE 924),
     (sym__expression, STATE 3086), (sym__real_expression, STATE 660),
     (sym_throw_expression, STATE 908), (sym_rethrow_expression, STATE 908),
     (sym_assignment_expression, STATE 908), (sym_assignable_expression, STATE 1940),
     (sym_function_expression, STATE 962), (sym_if_null_expression, STATE 1477),
     (sym_conditional_expression, STATE 1477), (sym_logical_or_expression, STATE 1477),
     (sym_logical_and_expression, STATE 1477), (sym_equality_expression, STATE 1477),
     (sym_type_cast_expression, STATE 1477), (sym_type_test_expression, STATE 1477),
     (sym_relational_expression, STATE 1477), (sym_bitwise_or_expression, STATE 1477),
     (sym_bitwise_xor_expression, STATE 1477), (sym_bitwise_and_expression, STATE 1477),
     (sym_shift_expression, STATE 1477), (sym_additive_expression, STATE 1477),
     (sym_multiplicative_expression, STATE 1477), (sym__unary_expression, STATE 1121),
     (sym_unary_expression, STATE 1303), (sym__postfix_expression, STATE 1303),
     (sym_postfix_expression, STATE 1301), (sym_prefix_operator, STATE 431),
     (sym_negation_operator, STATE 1450), (sym__exclamation_operator, STATE 1451),
     (sym_tilde_operator, STATE 1385), (sym_await_expression, STATE 1302),
     (sym_new_expression, STATE 962), (sym_const_object_expression, STATE 962),
     (sym__primary, STATE 668), (sym_parenthesized_expression, STATE 962),
     (sym_constructor_invocation, STATE 643), (sym_constructor_tearoff, STATE 962),
     (sym_type_arguments, STATE 3200), (sym_switch_expression, STATE 962),
     (sym__parenthesized_pattern, STATE 3182), (sym_list_pattern, STATE 3182),
     (sym_map_pattern, STATE 3182), (sym_record_pattern, STATE 3182),
     (sym_object_pattern, STATE 3182), (sym__outer_pattern, STATE 3410),
     (sym_pattern_assignment, STATE 908), (sym_type_parameters, STATE 2932),
     (sym__type_name, STATE 2661), (sym__formal_parameter_part, STATE 2339),
     (sym_formal_parameter_list, STATE 2020), (sym__strict_formal_parameter_list, STATE 2016),
     (sym__new_builtin, STATE 2079), (sym_this, STATE 962), (sym_super, STATE 1337),
     (sym_comment, STATE 222), (sym_documentation_comment, STATE 222),
     (aux_sym_string_literal_repeat1, STATE 474), (sym_identifier, ACTIONS 494),
     (anon_sym_POUND, ACTIONS 73), (sym_decimal_integer_literal, ACTIONS 75),
     (sym_hex_integer_literal, ACTIONS 77), (sym_decimal_floating_point_literal, ACTIONS 75),
     (anon_sym_true, ACTIONS 79), (anon_sym_false, ACTIONS 81), (anon_sym_DQUOTE, ACTIONS 83),
     (anon_sym_SQUOTE, ACTIONS 85), (anon_sym_DQUOTE_DQUOTE_DQUOTE, ACTIONS 87),
     (anon_sym_SQUOTE_SQUOTE_SQUOTE, ACTIONS 89), (anon_sym_r_DQUOTE, ACTIONS 91),
     (anon_sym_r_SQUOTE, ACTIONS 93), (anon_sym_r_DQUOTE_DQUOTE_DQUOTE, ACTIONS 95),
     (anon_sym_r_SQUOTE_SQUOTE_SQUOTE, ACTIONS 97), (anon_sym_LBRACE, ACTIONS 442),
     (anon_sym_LBRACK, ACTIONS 103), (anon_sym_null, ACTIONS 105),
     (anon_sym_LPAREN, ACTIONS 498), (anon_sym_throw, ACTIONS 109), (anon_sym_LT, ACTIONS 111),
     (sym_increment_operator, ACTIONS 113), (sym_minus_operator, ACTIONS 117),
     (anon_sym_BANG, ACTIONS 119), (anon_sym_TILDE, ACTIONS 121), (anon_sym_await, ACTIONS 432),
     (anon_sym_switch, ACTIONS 412), (sym_rethrow_builtin, ACTIONS 151),
     (anon_sym_new, ACTIONS 155), (sym_const_builtin, ACTIONS 478), (anon_sym_this, ACTIONS 159),
     (anon_sym_super, ACTIONS 161), (anon_sym_SLASH_SLASH, ACTIONS 3),
     (anon_sym_SLASH_STAR, ACTIONS 5), (anon_sym_SLASH_SLASH_SLASH, ACTIONS 7),
     (sym__block_comment, ACTIONS 9), (sym__documentation_block_comment, ACTIONS 11)]"

lemma row_ok_222: "table_row_ok 222 ts_parse_table_222"
  by (simp add: row_simps ts_parse_table_222_def)

definition ts_parse_table_223 :: table_row where
  "ts_parse_table_223 = [
     (sym__bool_literal, STATE 989), (sym__numeric_literal, STATE 989),
     (sym__literal, STATE 962), (sym_symbol_literal, STATE 989), (sym_true, STATE 900),
     (sym_false, STATE 900), (sym_string_literal, STATE 989),
     (sym__string_literal_double_quotes, STATE 627),
     (sym__string_literal_single_quotes, STATE 627),
     (sym__string_literal_double_quotes_multiple, STATE 627),
     (sym__string_literal_single_quotes_multiple, STATE 627),
     (sym__raw_string_literal_double_quotes, STATE 627),
     (sym__raw_string_literal_single_quotes, STATE 627),
     (sym__raw_string_literal_double_quotes_multiple, STATE 627),
     (sym__raw_string_literal_single_quotes_multiple, STATE 627), (sym_list_literal, STATE 989),
     (sym_set_or_map_literal, STATE 989), (sym_null_literal, STATE 989),
     (sym_record_literal, STATE 989), (sym__record_literal_no_const, STATE 924),
     (sym__expression, STATE 3290), (sym__real_expression, STATE 660),
     (sym_throw_expression, STATE 908), (sym_rethrow_expression, STATE 908),
     (sym_assignment_expression, STATE 908), (sym_assignable_expression, STATE 1940),
     (sym_function_expression, STATE 962), (sym_if_null_expression, STATE 1477),
     (sym_conditional_expression, STATE 1477), (sym_logical_or_expression, STATE 1477),
     (sym_logical_and_expression, STATE 1477), (sym_equality_expression, STATE 1477),
     (sym_type_cast_expression, STATE 1477), (sym_type_test_expression, STATE 1477),
     (sym_relational_expression, STATE 1477), (sym_bitwise_or_expression, STATE 1477),
     (sym_bitwise_xor_expression, STATE 1477), (sym_bitwise_and_expression, STATE 1477),
     (sym_shift_expression, STATE 1477), (sym_additive_expression, STATE 1477),
     (sym_multiplicative_expression, STATE 1477), (sym__unary_expression, STATE 1121),
     (sym_unary_expression, STATE 1303), (sym__postfix_expression, STATE 1303),
     (sym_postfix_expression, STATE 1301), (sym_prefix_operator, STATE 431),
     (sym_negation_operator, STATE 1450), (sym__exclamation_operator, STATE 1451),
     (sym_tilde_operator, STATE 1385), (sym_await_expression, STATE 1302),
     (sym_new_expression, STATE 962), (sym_const_object_expression, STATE 962),
     (sym__primary, STATE 668), (sym_parenthesized_expression, STATE 962),
     (sym_constructor_invocation, STATE 643), (sym_constructor_tearoff, STATE 962),
     (sym_type_arguments, STATE 3200), (sym_switch_expression, STATE 962),
     (sym__parenthesized_pattern, STATE 3182), (sym_list_pattern, STATE 3182),
     (sym_map_pattern, STATE 3182), (sym_record_pattern, STATE 3182),
     (sym_object_pattern, STATE 3182), (sym__outer_pattern, STATE 3410),
     (sym_pattern_assignment, STATE 908), (sym_type_parameters, STATE 2932),
     (sym__type_name, STATE 2661), (sym__formal_parameter_part, STATE 2339),
     (sym_formal_parameter_list, STATE 2020), (sym__strict_formal_parameter_list, STATE 2016),
     (sym__new_builtin, STATE 2079), (sym_this, STATE 962), (sym_super, STATE 1337),
     (sym_comment, STATE 223), (sym_documentation_comment, STATE 223),
     (aux_sym_string_literal_repeat1, STATE 474), (sym_identifier, ACTIONS 494),
     (anon_sym_POUND, ACTIONS 73), (sym_decimal_integer_literal, ACTIONS 75),
     (sym_hex_integer_literal, ACTIONS 77), (sym_decimal_floating_point_literal, ACTIONS 75),
     (anon_sym_true, ACTIONS 79), (anon_sym_false, ACTIONS 81), (anon_sym_DQUOTE, ACTIONS 83),
     (anon_sym_SQUOTE, ACTIONS 85), (anon_sym_DQUOTE_DQUOTE_DQUOTE, ACTIONS 87),
     (anon_sym_SQUOTE_SQUOTE_SQUOTE, ACTIONS 89), (anon_sym_r_DQUOTE, ACTIONS 91),
     (anon_sym_r_SQUOTE, ACTIONS 93), (anon_sym_r_DQUOTE_DQUOTE_DQUOTE, ACTIONS 95),
     (anon_sym_r_SQUOTE_SQUOTE_SQUOTE, ACTIONS 97), (anon_sym_LBRACE, ACTIONS 442),
     (anon_sym_LBRACK, ACTIONS 103), (anon_sym_null, ACTIONS 105),
     (anon_sym_LPAREN, ACTIONS 498), (anon_sym_throw, ACTIONS 109), (anon_sym_LT, ACTIONS 111),
     (sym_increment_operator, ACTIONS 113), (sym_minus_operator, ACTIONS 117),
     (anon_sym_BANG, ACTIONS 119), (anon_sym_TILDE, ACTIONS 121), (anon_sym_await, ACTIONS 432),
     (anon_sym_switch, ACTIONS 412), (sym_rethrow_builtin, ACTIONS 151),
     (anon_sym_new, ACTIONS 155), (sym_const_builtin, ACTIONS 478), (anon_sym_this, ACTIONS 159),
     (anon_sym_super, ACTIONS 161), (anon_sym_SLASH_SLASH, ACTIONS 3),
     (anon_sym_SLASH_STAR, ACTIONS 5), (anon_sym_SLASH_SLASH_SLASH, ACTIONS 7),
     (sym__block_comment, ACTIONS 9), (sym__documentation_block_comment, ACTIONS 11)]"

lemma row_ok_223: "table_row_ok 223 ts_parse_table_223"
  by (simp add: row_simps ts_parse_table_223_def)

definition ts_parse_table_224 :: table_row where
  "ts_parse_table_224 = [
     (sym__bool_literal, STATE 989), (sym__numeric_literal, STATE 989),
     (sym__literal, STATE 962), (sym_symbol_literal, STATE 989), (sym_true, STATE 900),
     (sym_false, STATE 900), (sym_string_literal, STATE 989),
     (sym__string_literal_double_quotes, STATE 627),
     (sym__string_literal_single_quotes, STATE 627),
     (sym__string_literal_double_quotes_multiple, STATE 627),
     (sym__string_literal_single_quotes_multiple, STATE 627),
     (sym__raw_string_literal_double_quotes, STATE 627),
     (sym__raw_string_literal_single_quotes, STATE 627),
     (sym__raw_string_literal_double_quotes_multiple, STATE 627),
     (sym__raw_string_literal_single_quotes_multiple, STATE 627), (sym_list_literal, STATE 989),
     (sym_set_or_map_literal, STATE 989), (sym_null_literal, STATE 989),
     (sym_record_literal, STATE 989), (sym__record_literal_no_const, STATE 924),
     (sym__expression, STATE 3207), (sym__real_expression, STATE 660),
     (sym_throw_expression, STATE 908), (sym_rethrow_expression, STATE 908),
     (sym_assignment_expression, STATE 908), (sym_assignable_expression, STATE 1940),
     (sym_function_expression, STATE 962), (sym_if_null_expression, STATE 1477),
     (sym_conditional_expression, STATE 1477), (sym_logical_or_expression, STATE 1477),
     (sym_logical_and_expression, STATE 1477), (sym_equality_expression, STATE 1477),
     (sym_type_cast_expression, STATE 1477), (sym_type_test_expression, STATE 1477),
     (sym_relational_expression, STATE 1477), (sym_bitwise_or_expression, STATE 1477),
     (sym_bitwise_xor_expression, STATE 1477), (sym_bitwise_and_expression, STATE 1477),
     (sym_shift_expression, STATE 1477), (sym_additive_expression, STATE 1477),
     (sym_multiplicative_expression, STATE 1477), (sym__unary_expression, STATE 1121),
     (sym_unary_expression, STATE 1303), (sym__postfix_expression, STATE 1303),
     (sym_postfix_expression, STATE 1301), (sym_prefix_operator, STATE 431),
     (sym_negation_operator, STATE 1450), (sym__exclamation_operator, STATE 1451),
     (sym_tilde_operator, STATE 1385), (sym_await_expression, STATE 1302),
     (sym_new_expression, STATE 962), (sym_const_object_expression, STATE 962),
     (sym__primary, STATE 668), (sym_parenthesized_expression, STATE 962),
     (sym_constructor_invocation, STATE 643), (sym_constructor_tearoff, STATE 962),
     (sym_type_arguments, STATE 3200), (sym_switch_expression, STATE 962),
     (sym__parenthesized_pattern, STATE 3182), (sym_list_pattern, STATE 3182),
     (sym_map_pattern, STATE 3182), (sym_record_pattern, STATE 3182),
     (sym_object_pattern, STATE 3182), (sym__outer_pattern, STATE 3410),
     (sym_pattern_assignment, STATE 908), (sym_type_parameters, STATE 2932),
     (sym__type_name, STATE 2661), (sym__formal_parameter_part, STATE 2339),
     (sym_formal_parameter_list, STATE 2020), (sym__strict_formal_parameter_list, STATE 2016),
     (sym__new_builtin, STATE 2079), (sym_this, STATE 962), (sym_super, STATE 1337),
     (sym_comment, STATE 224), (sym_documentation_comment, STATE 224),
     (aux_sym_string_literal_repeat1, STATE 474), (sym_identifier, ACTIONS 494),
     (anon_sym_POUND, ACTIONS 73), (sym_decimal_integer_literal, ACTIONS 75),
     (sym_hex_integer_literal, ACTIONS 77), (sym_decimal_floating_point_literal, ACTIONS 75),
     (anon_sym_true, ACTIONS 79), (anon_sym_false, ACTIONS 81), (anon_sym_DQUOTE, ACTIONS 83),
     (anon_sym_SQUOTE, ACTIONS 85), (anon_sym_DQUOTE_DQUOTE_DQUOTE, ACTIONS 87),
     (anon_sym_SQUOTE_SQUOTE_SQUOTE, ACTIONS 89), (anon_sym_r_DQUOTE, ACTIONS 91),
     (anon_sym_r_SQUOTE, ACTIONS 93), (anon_sym_r_DQUOTE_DQUOTE_DQUOTE, ACTIONS 95),
     (anon_sym_r_SQUOTE_SQUOTE_SQUOTE, ACTIONS 97), (anon_sym_LBRACE, ACTIONS 442),
     (anon_sym_LBRACK, ACTIONS 103), (anon_sym_null, ACTIONS 105),
     (anon_sym_LPAREN, ACTIONS 498), (anon_sym_throw, ACTIONS 109), (anon_sym_LT, ACTIONS 111),
     (sym_increment_operator, ACTIONS 113), (sym_minus_operator, ACTIONS 117),
     (anon_sym_BANG, ACTIONS 119), (anon_sym_TILDE, ACTIONS 121), (anon_sym_await, ACTIONS 432),
     (anon_sym_switch, ACTIONS 412), (sym_rethrow_builtin, ACTIONS 151),
     (anon_sym_new, ACTIONS 155), (sym_const_builtin, ACTIONS 478), (anon_sym_this, ACTIONS 159),
     (anon_sym_super, ACTIONS 161), (anon_sym_SLASH_SLASH, ACTIONS 3),
     (anon_sym_SLASH_STAR, ACTIONS 5), (anon_sym_SLASH_SLASH_SLASH, ACTIONS 7),
     (sym__block_comment, ACTIONS 9), (sym__documentation_block_comment, ACTIONS 11)]"

lemma row_ok_224: "table_row_ok 224 ts_parse_table_224"
  by (simp add: row_simps ts_parse_table_224_def)

definition ts_parse_table_225 :: table_row where
  "ts_parse_table_225 = [
     (sym__bool_literal, STATE 989), (sym__numeric_literal, STATE 989),
     (sym__literal, STATE 962), (sym_symbol_literal, STATE 989), (sym_true, STATE 900),
     (sym_false, STATE 900), (sym_string_literal, STATE 989),
     (sym__string_literal_double_quotes, STATE 627),
     (sym__string_literal_single_quotes, STATE 627),
     (sym__string_literal_double_quotes_multiple, STATE 627),
     (sym__string_literal_single_quotes_multiple, STATE 627),
     (sym__raw_string_literal_double_quotes, STATE 627),
     (sym__raw_string_literal_single_quotes, STATE 627),
     (sym__raw_string_literal_double_quotes_multiple, STATE 627),
     (sym__raw_string_literal_single_quotes_multiple, STATE 627), (sym_list_literal, STATE 989),
     (sym_set_or_map_literal, STATE 989), (sym_null_literal, STATE 989),
     (sym_record_literal, STATE 989), (sym__record_literal_no_const, STATE 924),
     (sym__expression, STATE 3247), (sym__real_expression, STATE 660),
     (sym_throw_expression, STATE 908), (sym_rethrow_expression, STATE 908),
     (sym_assignment_expression, STATE 908), (sym_assignable_expression, STATE 1940),
     (sym_function_expression, STATE 962), (sym_if_null_expression, STATE 1477),
     (sym_conditional_expression, STATE 1477), (sym_logical_or_expression, STATE 1477),
     (sym_logical_and_expression, STATE 1477), (sym_equality_expression, STATE 1477),
     (sym_type_cast_expression, STATE 1477), (sym_type_test_expression, STATE 1477),
     (sym_relational_expression, STATE 1477), (sym_bitwise_or_expression, STATE 1477),
     (sym_bitwise_xor_expression, STATE 1477), (sym_bitwise_and_expression, STATE 1477),
     (sym_shift_expression, STATE 1477), (sym_additive_expression, STATE 1477),
     (sym_multiplicative_expression, STATE 1477), (sym__unary_expression, STATE 1121),
     (sym_unary_expression, STATE 1303), (sym__postfix_expression, STATE 1303),
     (sym_postfix_expression, STATE 1301), (sym_prefix_operator, STATE 431),
     (sym_negation_operator, STATE 1450), (sym__exclamation_operator, STATE 1451),
     (sym_tilde_operator, STATE 1385), (sym_await_expression, STATE 1302),
     (sym_new_expression, STATE 962), (sym_const_object_expression, STATE 962),
     (sym__primary, STATE 668), (sym_parenthesized_expression, STATE 962),
     (sym_constructor_invocation, STATE 643), (sym_constructor_tearoff, STATE 962),
     (sym_type_arguments, STATE 3200), (sym_switch_expression, STATE 962),
     (sym__parenthesized_pattern, STATE 3182), (sym_list_pattern, STATE 3182),
     (sym_map_pattern, STATE 3182), (sym_record_pattern, STATE 3182),
     (sym_object_pattern, STATE 3182), (sym__outer_pattern, STATE 3410),
     (sym_pattern_assignment, STATE 908), (sym_type_parameters, STATE 2932),
     (sym__type_name, STATE 2661), (sym__formal_parameter_part, STATE 2339),
     (sym_formal_parameter_list, STATE 2020), (sym__strict_formal_parameter_list, STATE 2016),
     (sym__new_builtin, STATE 2079), (sym_this, STATE 962), (sym_super, STATE 1337),
     (sym_comment, STATE 225), (sym_documentation_comment, STATE 225),
     (aux_sym_string_literal_repeat1, STATE 474), (sym_identifier, ACTIONS 494),
     (anon_sym_POUND, ACTIONS 73), (sym_decimal_integer_literal, ACTIONS 75),
     (sym_hex_integer_literal, ACTIONS 77), (sym_decimal_floating_point_literal, ACTIONS 75),
     (anon_sym_true, ACTIONS 79), (anon_sym_false, ACTIONS 81), (anon_sym_DQUOTE, ACTIONS 83),
     (anon_sym_SQUOTE, ACTIONS 85), (anon_sym_DQUOTE_DQUOTE_DQUOTE, ACTIONS 87),
     (anon_sym_SQUOTE_SQUOTE_SQUOTE, ACTIONS 89), (anon_sym_r_DQUOTE, ACTIONS 91),
     (anon_sym_r_SQUOTE, ACTIONS 93), (anon_sym_r_DQUOTE_DQUOTE_DQUOTE, ACTIONS 95),
     (anon_sym_r_SQUOTE_SQUOTE_SQUOTE, ACTIONS 97), (anon_sym_LBRACE, ACTIONS 442),
     (anon_sym_LBRACK, ACTIONS 103), (anon_sym_null, ACTIONS 105),
     (anon_sym_LPAREN, ACTIONS 498), (anon_sym_throw, ACTIONS 109), (anon_sym_LT, ACTIONS 111),
     (sym_increment_operator, ACTIONS 113), (sym_minus_operator, ACTIONS 117),
     (anon_sym_BANG, ACTIONS 119), (anon_sym_TILDE, ACTIONS 121), (anon_sym_await, ACTIONS 432),
     (anon_sym_switch, ACTIONS 412), (sym_rethrow_builtin, ACTIONS 151),
     (anon_sym_new, ACTIONS 155), (sym_const_builtin, ACTIONS 478), (anon_sym_this, ACTIONS 159),
     (anon_sym_super, ACTIONS 161), (anon_sym_SLASH_SLASH, ACTIONS 3),
     (anon_sym_SLASH_STAR, ACTIONS 5), (anon_sym_SLASH_SLASH_SLASH, ACTIONS 7),
     (sym__block_comment, ACTIONS 9), (sym__documentation_block_comment, ACTIONS 11)]"

lemma row_ok_225: "table_row_ok 225 ts_parse_table_225"
  by (simp add: row_simps ts_parse_table_225_def)

definition ts_parse_table_226 :: table_row where
  "ts_parse_table_226 = [
     (sym__bool_literal, STATE 989), (sym__numeric_literal, STATE 989),
     (sym__literal, STATE 962), (sym_symbol_literal, STATE 989), (sym_true, STATE 900),
     (sym_false, STATE 900), (sym_string_literal, STATE 989),
     (sym__string_literal_double_quotes, STATE 627),
     (sym__string_literal_single_quotes, STATE 627),
     (sym__string_literal_double_quotes_multiple, STATE 627),
     (sym__string_literal_single_quotes_multiple, STATE 627),
     (sym__raw_string_literal_double_quotes, STATE 627),
     (sym__raw_string_literal_single_quotes, STATE 627),
     (sym__raw_string_literal_double_quotes_multiple, STATE 627),
     (sym__raw_string_literal_single_quotes_multiple, STATE 627), (sym_list_literal, STATE 989),
     (sym_set_or_map_literal, STATE 989), (sym_null_literal, STATE 989),
     (sym_record_literal, STATE 989), (sym__record_literal_no_const, STATE 924),
     (sym__expression, STATE 3370), (sym__real_expression, STATE 660),
     (sym_throw_expression, STATE 908), (sym_rethrow_expression, STATE 908),
     (sym_assignment_expression, STATE 908), (sym_assignable_expression, STATE 1940),
     (sym_function_expression, STATE 962), (sym_if_null_expression, STATE 1477),
     (sym_conditional_expression, STATE 1477), (sym_logical_or_expression, STATE 1477),
     (sym_logical_and_expression, STATE 1477), (sym_equality_expression, STATE 1477),
     (sym_type_cast_expression, STATE 1477), (sym_type_test_expression, STATE 1477),
     (sym_relational_expression, STATE 1477), (sym_bitwise_or_expression, STATE 1477),
     (sym_bitwise_xor_expression, STATE 1477), (sym_bitwise_and_expression, STATE 1477),
     (sym_shift_expression, STATE 1477), (sym_additive_expression, STATE 1477),
     (sym_multiplicative_expression, STATE 1477), (sym__unary_expression, STATE 1121),
     (sym_unary_expression, STATE 1303), (sym__postfix_expression, STATE 1303),
     (sym_postfix_expression, STATE 1301), (sym_prefix_operator, STATE 431),
     (sym_negation_operator, STATE 1450), (sym__exclamation_operator, STATE 1451),
     (sym_tilde_operator, STATE 1385), (sym_await_expression, STATE 1302),
     (sym_new_expression, STATE 962), (sym_const_object_expression, STATE 962),
     (sym__primary, STATE 668), (sym_parenthesized_expression, STATE 962),
     (sym_constructor_invocation, STATE 643), (sym_constructor_tearoff, STATE 962),
     (sym_type_arguments, STATE 3200), (sym_switch_expression, STATE 962),
     (sym__parenthesized_pattern, STATE 3182), (sym_list_pattern, STATE 3182),
     (sym_map_pattern, STATE 3182), (sym_record_pattern, STATE 3182),
     (sym_object_pattern, STATE 3182), (sym__outer_pattern, STATE 3410),
     (sym_pattern_assignment, STATE 908), (sym_type_parameters, STATE 2932),
     (sym__type_name, STATE 2661), (sym__formal_parameter_part, STATE 2339),
     (sym_formal_parameter_list, STATE 2020), (sym__strict_formal_parameter_list, STATE 2016),
     (sym__new_builtin, STATE 2079), (sym_this, STATE 962), (sym_super, STATE 1337),
     (sym_comment, STATE 226), (sym_documentation_comment, STATE 226),
     (aux_sym_string_literal_repeat1, STATE 474), (sym_identifier, ACTIONS 494),
     (anon_sym_POUND, ACTIONS 73), (sym_decimal_integer_literal, ACTIONS 75),
     (sym_hex_integer_literal, ACTIONS 77), (sym_decimal_floating_point_literal, ACTIONS 75),
     (anon_sym_true, ACTIONS 79), (anon_sym_false, ACTIONS 81), (anon_sym_DQUOTE, ACTIONS 83),
     (anon_sym_SQUOTE, ACTIONS 85), (anon_sym_DQUOTE_DQUOTE_DQUOTE, ACTIONS 87),
     (anon_sym_SQUOTE_SQUOTE_SQUOTE, ACTIONS 89), (anon_sym_r_DQUOTE, ACTIONS 91),
     (anon_sym_r_SQUOTE, ACTIONS 93), (anon_sym_r_DQUOTE_DQUOTE_DQUOTE, ACTIONS 95),
     (anon_sym_r_SQUOTE_SQUOTE_SQUOTE, ACTIONS 97), (anon_sym_LBRACE, ACTIONS 442),
     (anon_sym_LBRACK, ACTIONS 103), (anon_sym_null, ACTIONS 105),
     (anon_sym_LPAREN, ACTIONS 498), (anon_sym_throw, ACTIONS 109), (anon_sym_LT, ACTIONS 111),
     (sym_increment_operator, ACTIONS 113), (sym_minus_operator, ACTIONS 117),
     (anon_sym_BANG, ACTIONS 119), (anon_sym_TILDE, ACTIONS 121), (anon_sym_await, ACTIONS 432),
     (anon_sym_switch, ACTIONS 412), (sym_rethrow_builtin, ACTIONS 151),
     (anon_sym_new, ACTIONS 155), (sym_const_builtin, ACTIONS 478), (anon_sym_this, ACTIONS 159),
     (anon_sym_super, ACTIONS 161), (anon_sym_SLASH_SLASH, ACTIONS 3),
     (anon_sym_SLASH_STAR, ACTIONS 5), (anon_sym_SLASH_SLASH_SLASH, ACTIONS 7),
     (sym__block_comment, ACTIONS 9), (sym__documentation_block_comment, ACTIONS 11)]"

lemma row_ok_226: "table_row_ok 226 ts_parse_table_226"
  by (simp add: row_simps ts_parse_table_226_def)

definition ts_parse_table_227 :: table_row where
  "ts_parse_table_227 = [
     (sym__bool_literal, STATE 989), (sym__numeric_literal, STATE 989),
     (sym__literal, STATE 962), (sym_symbol_literal, STATE 989), (sym_true, STATE 900),
     (sym_false, STATE 900), (sym_string_literal, STATE 989),
     (sym__string_literal_double_quotes, STATE 627),
     (sym__string_literal_single_quotes, STATE 627),
     (sym__string_literal_double_quotes_multiple, STATE 627),
     (sym__string_literal_single_quotes_multiple, STATE 627),
     (sym__raw_string_literal_double_quotes, STATE 627),
     (sym__raw_string_literal_single_quotes, STATE 627),
     (sym__raw_string_literal_double_quotes_multiple, STATE 627),
     (sym__raw_string_literal_single_quotes_multiple, STATE 627), (sym_list_literal, STATE 989),
     (sym_set_or_map_literal, STATE 989), (sym_null_literal, STATE 989),
     (sym_record_literal, STATE 989), (sym__record_literal_no_const, STATE 924),
     (sym__expression, STATE 3351), (sym__real_expression, STATE 660),
     (sym_throw_expression, STATE 908), (sym_rethrow_expression, STATE 908),
     (sym_assignment_expression, STATE 908), (sym_assignable_expression, STATE 1940),
     (sym_function_expression, STATE 962), (sym_if_null_expression, STATE 1477),
     (sym_conditional_expression, STATE 1477), (sym_logical_or_expression, STATE 1477),
     (sym_logical_and_expression, STATE 1477), (sym_equality_expression, STATE 1477),
     (sym_type_cast_expression, STATE 1477), (sym_type_test_expression, STATE 1477),
     (sym_relational_expression, STATE 1477), (sym_bitwise_or_expression, STATE 1477),
     (sym_bitwise_xor_expression, STATE 1477), (sym_bitwise_and_expression, STATE 1477),
     (sym_shift_expression, STATE 1477), (sym_additive_expression, STATE 1477),
     (sym_multiplicative_expression, STATE 1477), (sym__unary_expression, STATE 1121),
     (sym_unary_expression, STATE 1303), (sym__postfix_expression, STATE 1303),
     (sym_postfix_expression, STATE 1301), (sym_prefix_operator, STATE 431),
     (sym_negation_operator, STATE 1450), (sym__exclamation_operator, STATE 1451),
     (sym_tilde_operator, STATE 1385), (sym_await_expression, STATE 1302),
     (sym_new_expression, STATE 962), (sym_const_object_expression, STATE 962),
     (sym__primary, STATE 668), (sym_parenthesized_expression, STATE 962),
     (sym_constructor_invocation, STATE 643), (sym_constructor_tearoff, STATE 962),
     (sym_type_arguments, STATE 3200), (sym_switch_expression, STATE 962),
     (sym__parenthesized_pattern, STATE 3182), (sym_list_pattern, STATE 3182),
     (sym_map_pattern, STATE 3182), (sym_record_pattern, STATE 3182),
     (sym_object_pattern, STATE 3182), (sym__outer_pattern, STATE 3410),
     (sym_pattern_assignment, STATE 908), (sym_type_parameters, STATE 2932),
     (sym__type_name, STATE 2661), (sym__formal_parameter_part, STATE 2339),
     (sym_formal_parameter_list, STATE 2020), (sym__strict_formal_parameter_list, STATE 2016),
     (sym__new_builtin, STATE 2079), (sym_this, STATE 962), (sym_super, STATE 1337),
     (sym_comment, STATE 227), (sym_documentation_comment, STATE 227),
     (aux_sym_string_literal_repeat1, STATE 474), (sym_identifier, ACTIONS 494),
     (anon_sym_POUND, ACTIONS 73), (sym_decimal_integer_literal, ACTIONS 75),
     (sym_hex_integer_literal, ACTIONS 77), (sym_decimal_floating_point_literal, ACTIONS 75),
     (anon_sym_true, ACTIONS 79), (anon_sym_false, ACTIONS 81), (anon_sym_DQUOTE, ACTIONS 83),
     (anon_sym_SQUOTE, ACTIONS 85), (anon_sym_DQUOTE_DQUOTE_DQUOTE, ACTIONS 87),
     (anon_sym_SQUOTE_SQUOTE_SQUOTE, ACTIONS 89), (anon_sym_r_DQUOTE, ACTIONS 91),
     (anon_sym_r_SQUOTE, ACTIONS 93), (anon_sym_r_DQUOTE_DQUOTE_DQUOTE, ACTIONS 95),
     (anon_sym_r_SQUOTE_SQUOTE_SQUOTE, ACTIONS 97), (anon_sym_LBRACE, ACTIONS 442),
     (anon_sym_LBRACK, ACTIONS 103), (anon_sym_null, ACTIONS 105),
     (anon_sym_LPAREN, ACTIONS 498), (anon_sym_throw, ACTIONS 109), (anon_sym_LT, ACTIONS 111),
     (sym_increment_operator, ACTIONS 113), (sym_minus_operator, ACTIONS 117),
     (anon_sym_BANG, ACTIONS 119), (anon_sym_TILDE, ACTIONS 121), (anon_sym_await, ACTIONS 432),
     (anon_sym_switch, ACTIONS 412), (sym_rethrow_builtin, ACTIONS 151),
     (anon_sym_new, ACTIONS 155), (sym_const_builtin, ACTIONS 478), (anon_sym_this, ACTIONS 159),
     (anon_sym_super, ACTIONS 161), (anon_sym_SLASH_SLASH, ACTIONS 3),
     (anon_sym_SLASH_STAR, ACTIONS 5), (anon_sym_SLASH_SLASH_SLASH, ACTIONS 7),
     (sym__block_comment, ACTIONS 9), (sym__documentation_block_comment, ACTIONS 11)]"

lemma row_ok_227: "table_row_ok 227 ts_parse_table_227"
  by (simp add: row_simps ts_parse_table_227_def)

definition ts_parse_table_228 :: table_row where
  "ts_parse_table_228 = [
     (sym__bool_literal, STATE 989), (sym__numeric_literal, STATE 989),
     (sym__literal, STATE 962), (sym_symbol_literal, STATE 989), (sym_true, STATE 900),
     (sym_false, STATE 900), (sym_string_literal, STATE 989),
     (sym__string_literal_double_quotes, STATE 627),
     (sym__string_literal_single_quotes, STATE 627),
     (sym__string_literal_double_quotes_multiple, STATE 627),
     (sym__string_literal_single_quotes_multiple, STATE 627),
     (sym__raw_string_literal_double_quotes, STATE 627),
     (sym__raw_string_literal_single_quotes, STATE 627),
     (sym__raw_string_literal_double_quotes_multiple, STATE 627),
     (sym__raw_string_literal_single_quotes_multiple, STATE 627), (sym_list_literal, STATE 989),
     (sym_set_or_map_literal, STATE 989), (sym_null_literal, STATE 989),
     (sym_record_literal, STATE 989), (sym__record_literal_no_const, STATE 924),
     (sym__expression, STATE 3071), (sym__real_expression, STATE 660),
     (sym_throw_expression, STATE 908), (sym_rethrow_expression, STATE 908),
     (sym_assignment_expression, STATE 908), (sym_assignable_expression, STATE 1940),
     (sym_function_expression, STATE 962), (sym_if_null_expression, STATE 1477),
     (sym_conditional_expression, STATE 1477), (sym_logical_or_expression, STATE 1477),
     (sym_logical_and_expression, STATE 1477), (sym_equality_expression, STATE 1477),
     (sym_type_cast_expression, STATE 1477), (sym_type_test_expression, STATE 1477),
     (sym_relational_expression, STATE 1477), (sym_bitwise_or_expression, STATE 1477),
     (sym_bitwise_xor_expression, STATE 1477), (sym_bitwise_and_expression, STATE 1477),
     (sym_shift_expression, STATE 1477), (sym_additive_expression, STATE 1477),
     (sym_multiplicative_expression, STATE 1477), (sym__unary_expression, STATE 1121),
     (sym_unary_expression, STATE 1303), (sym__postfix_expression, STATE 1303),
     (sym_postfix_expression, STATE 1301), (sym_prefix_operator, STATE 431),
     (sym_negation_operator, STATE 1450), (sym__exclamation_operator, STATE 1451),
     (sym_tilde_operator, STATE 1385), (sym_await_expression, STATE 1302),
     (sym_new_expression, STATE 962), (sym_const_object_expression, STATE 962),
     (sym__primary, STATE 668), (sym_parenthesized_expression, STATE 962),
     (sym_constructor_invocation, STATE 643), (sym_constructor_tearoff, STATE 962),
     (sym_type_arguments, STATE 3200), (sym_switch_expression, STATE 962),
     (sym__parenthesized_pattern, STATE 3182), (sym_list_pattern, STATE 3182),
     (sym_map_pattern, STATE 3182), (sym_record_pattern, STATE 3182),
     (sym_object_pattern, STATE 3182), (sym__outer_pattern, STATE 3410),
     (sym_pattern_assignment, STATE 908), (sym_type_parameters, STATE 2932),
     (sym__type_name, STATE 2661), (sym__formal_parameter_part, STATE 2339),
     (sym_formal_parameter_list, STATE 2020), (sym__strict_formal_parameter_list, STATE 2016),
     (sym__new_builtin, STATE 2079), (sym_this, STATE 962), (sym_super, STATE 1337),
     (sym_comment, STATE 228), (sym_documentation_comment, STATE 228),
     (aux_sym_string_literal_repeat1, STATE 474), (sym_identifier, ACTIONS 494),
     (anon_sym_POUND, ACTIONS 73), (sym_decimal_integer_literal, ACTIONS 75),
     (sym_hex_integer_literal, ACTIONS 77), (sym_decimal_floating_point_literal, ACTIONS 75),
     (anon_sym_true, ACTIONS 79), (anon_sym_false, ACTIONS 81), (anon_sym_DQUOTE, ACTIONS 83),
     (anon_sym_SQUOTE, ACTIONS 85), (anon_sym_DQUOTE_DQUOTE_DQUOTE, ACTIONS 87),
     (anon_sym_SQUOTE_SQUOTE_SQUOTE, ACTIONS 89), (anon_sym_r_DQUOTE, ACTIONS 91),
     (anon_sym_r_SQUOTE, ACTIONS 93), (anon_sym_r_DQUOTE_DQUOTE_DQUOTE, ACTIONS 95),
     (anon_sym_r_SQUOTE_SQUOTE_SQUOTE, ACTIONS 97), (anon_sym_LBRACE, ACTIONS 442),
     (anon_sym_LBRACK, ACTIONS 103), (anon_sym_null, ACTIONS 105),
     (anon_sym_LPAREN, ACTIONS 498), (anon_sym_throw, ACTIONS 109), (anon_sym_LT, ACTIONS 111),
     (sym_increment_operator, ACTIONS 113), (sym_minus_operator, ACTIONS 117),
     (anon_sym_BANG, ACTIONS 119), (anon_sym_TILDE, ACTIONS 121), (anon_sym_await, ACTIONS 432),
     (anon_sym_switch, ACTIONS 412), (sym_rethrow_builtin, ACTIONS 151),
     (anon_sym_new, ACTIONS 155), (sym_const_builtin, ACTIONS 478), (anon_sym_this, ACTIONS 159),
     (anon_sym_super, ACTIONS 161), (anon_sym_SLASH_SLASH, ACTIONS 3),
     (anon_sym_SLASH_STAR, ACTIONS 5), (anon_sym_SLASH_SLASH_SLASH, ACTIONS 7),
     (sym__block_comment, ACTIONS 9), (sym__documentation_block_comment, ACTIONS 11)]"

lemma row_ok_228: "table_row_ok 228 ts_parse_table_228"
  by (simp add: row_simps ts_parse_table_228_def)

definition ts_parse_table_229 :: table_row where
  "ts_parse_table_229 = [
     (sym__bool_literal, STATE 989), (sym__numeric_literal, STATE 989),
     (sym__literal, STATE 962), (sym_symbol_literal, STATE 989), (sym_true, STATE 900),
     (sym_false, STATE 900), (sym_string_literal, STATE 989),
     (sym__string_literal_double_quotes, STATE 627),
     (sym__string_literal_single_quotes, STATE 627),
     (sym__string_literal_double_quotes_multiple, STATE 627),
     (sym__string_literal_single_quotes_multiple, STATE 627),
     (sym__raw_string_literal_double_quotes, STATE 627),
     (sym__raw_string_literal_single_quotes, STATE 627),
     (sym__raw_string_literal_double_quotes_multiple, STATE 627),
     (sym__raw_string_literal_single_quotes_multiple, STATE 627), (sym_list_literal, STATE 989),
     (sym_set_or_map_literal, STATE 989), (sym_null_literal, STATE 989),
     (sym_record_literal, STATE 989), (sym__record_literal_no_const, STATE 924),
     (sym__expression, STATE 3315), (sym__real_expression, STATE 660),
     (sym_throw_expression, STATE 908), (sym_rethrow_expression, STATE 908),
     (sym_assignment_expression, STATE 908), (sym_assignable_expression, STATE 1940),
     (sym_function_expression, STATE 962), (sym_if_null_expression, STATE 1477),
     (sym_conditional_expression, STATE 1477), (sym_logical_or_expression, STATE 1477),
     (sym_logical_and_expression, STATE 1477), (sym_equality_expression, STATE 1477),
     (sym_type_cast_expression, STATE 1477), (sym_type_test_expression, STATE 1477),
     (sym_relational_expression, STATE 1477), (sym_bitwise_or_expression, STATE 1477),
     (sym_bitwise_xor_expression, STATE 1477), (sym_bitwise_and_expression, STATE 1477),
     (sym_shift_expression, STATE 1477), (sym_additive_expression, STATE 1477),
     (sym_multiplicative_expression, STATE 1477), (sym__unary_expression, STATE 1121),
     (sym_unary_expression, STATE 1303), (sym__postfix_expression, STATE 1303),
     (sym_postfix_expression, STATE 1301), (sym_prefix_operator, STATE 431),
     (sym_negation_operator, STATE 1450), (sym__exclamation_operator, STATE 1451),
     (sym_tilde_operator, STATE 1385), (sym_await_expression, STATE 1302),
     (sym_new_expression, STATE 962), (sym_const_object_expression, STATE 962),
     (sym__primary, STATE 668), (sym_parenthesized_expression, STATE 962),
     (sym_constructor_invocation, STATE 643), (sym_constructor_tearoff, STATE 962),
     (sym_type_arguments, STATE 3200), (sym_switch_expression, STATE 962),
     (sym__parenthesized_pattern, STATE 3182), (sym_list_pattern, STATE 3182),
     (sym_map_pattern, STATE 3182), (sym_record_pattern, STATE 3182),
     (sym_object_pattern, STATE 3182), (sym__outer_pattern, STATE 3410),
     (sym_pattern_assignment, STATE 908), (sym_type_parameters, STATE 2932),
     (sym__type_name, STATE 2661), (sym__formal_parameter_part, STATE 2339),
     (sym_formal_parameter_list, STATE 2020), (sym__strict_formal_parameter_list, STATE 2016),
     (sym__new_builtin, STATE 2079), (sym_this, STATE 962), (sym_super, STATE 1337),
     (sym_comment, STATE 229), (sym_documentation_comment, STATE 229),
     (aux_sym_string_literal_repeat1, STATE 474), (sym_identifier, ACTIONS 494),
     (anon_sym_POUND, ACTIONS 73), (sym_decimal_integer_literal, ACTIONS 75),
     (sym_hex_integer_literal, ACTIONS 77), (sym_decimal_floating_point_literal, ACTIONS 75),
     (anon_sym_true, ACTIONS 79), (anon_sym_false, ACTIONS 81), (anon_sym_DQUOTE, ACTIONS 83),
     (anon_sym_SQUOTE, ACTIONS 85), (anon_sym_DQUOTE_DQUOTE_DQUOTE, ACTIONS 87),
     (anon_sym_SQUOTE_SQUOTE_SQUOTE, ACTIONS 89), (anon_sym_r_DQUOTE, ACTIONS 91),
     (anon_sym_r_SQUOTE, ACTIONS 93), (anon_sym_r_DQUOTE_DQUOTE_DQUOTE, ACTIONS 95),
     (anon_sym_r_SQUOTE_SQUOTE_SQUOTE, ACTIONS 97), (anon_sym_LBRACE, ACTIONS 442),
     (anon_sym_LBRACK, ACTIONS 103), (anon_sym_null, ACTIONS 105),
     (anon_sym_LPAREN, ACTIONS 498), (anon_sym_throw, ACTIONS 109), (anon_sym_LT, ACTIONS 111),
     (sym_increment_operator, ACTIONS 113), (sym_minus_operator, ACTIONS 117),
     (anon_sym_BANG, ACTIONS 119), (anon_sym_TILDE, ACTIONS 121), (anon_sym_await, ACTIONS 432),
     (anon_sym_switch, ACTIONS 412), (sym_rethrow_builtin, ACTIONS 151),
     (anon_sym_new, ACTIONS 155), (sym_const_builtin, ACTIONS 478), (anon_sym_this, ACTIONS 159),
     (anon_sym_super, ACTIONS 161), (anon_sym_SLASH_SLASH, ACTIONS 3),
     (anon_sym_SLASH_STAR, ACTIONS 5), (anon_sym_SLASH_SLASH_SLASH, ACTIONS 7),
     (sym__block_comment, ACTIONS 9), (sym__documentation_block_comment, ACTIONS 11)]"

lemma row_ok_229: "table_row_ok 229 ts_parse_table_229"
  by (simp add: row_simps ts_parse_table_229_def)

definition ts_parse_table_230 :: table_row where
  "ts_parse_table_230 = [
     (sym__bool_literal, STATE 989), (sym__numeric_literal, STATE 989),
     (sym__literal, STATE 962), (sym_symbol_literal, STATE 989), (sym_true, STATE 900),
     (sym_false, STATE 900), (sym_string_literal, STATE 989),
     (sym__string_literal_double_quotes, STATE 627),
     (sym__string_literal_single_quotes, STATE 627),
     (sym__string_literal_double_quotes_multiple, STATE 627),
     (sym__string_literal_single_quotes_multiple, STATE 627),
     (sym__raw_string_literal_double_quotes, STATE 627),
     (sym__raw_string_literal_single_quotes, STATE 627),
     (sym__raw_string_literal_double_quotes_multiple, STATE 627),
     (sym__raw_string_literal_single_quotes_multiple, STATE 627), (sym_list_literal, STATE 989),
     (sym_set_or_map_literal, STATE 989), (sym_null_literal, STATE 989),
     (sym_record_literal, STATE 989), (sym__record_literal_no_const, STATE 924),
     (sym__expression, STATE 951), (sym__real_expression, STATE 660),
     (sym_throw_expression, STATE 908), (sym_rethrow_expression, STATE 908),
     (sym_assignment_expression, STATE 908), (sym_assignable_expression, STATE 1940),
     (sym_function_expression, STATE 962), (sym_if_null_expression, STATE 1477),
     (sym_conditional_expression, STATE 1477), (sym_logical_or_expression, STATE 1477),
     (sym_logical_and_expression, STATE 1477), (sym_equality_expression, STATE 1477),
     (sym_type_cast_expression, STATE 1477), (sym_type_test_expression, STATE 1477),
     (sym_relational_expression, STATE 1477), (sym_bitwise_or_expression, STATE 1477),
     (sym_bitwise_xor_expression, STATE 1477), (sym_bitwise_and_expression, STATE 1477),
     (sym_shift_expression, STATE 1477), (sym_additive_expression, STATE 1477),
     (sym_multiplicative_expression, STATE 1477), (sym__unary_expression, STATE 1121),
     (sym_unary_expression, STATE 1303), (sym__postfix_expression, STATE 1303),
     (sym_postfix_expression, STATE 1301), (sym_prefix_operator, STATE 431),
     (sym_negation_operator, STATE 1450), (sym__exclamation_operator, STATE 1451),
     (sym_tilde_operator, STATE 1385), (sym_await_expression, STATE 1302),
     (sym_new_expression, STATE 962), (sym_const_object_expression, STATE 962),
     (sym__primary, STATE 668), (sym_parenthesized_expression, STATE 962),
     (sym_constructor_invocation, STATE 643), (sym_constructor_tearoff, STATE 962),
     (sym_type_arguments, STATE 3200), (sym_switch_expression, STATE 962),
     (sym__parenthesized_pattern, STATE 3182), (sym_list_pattern, STATE 3182),
     (sym_map_pattern, STATE 3182), (sym_record_pattern, STATE 3182),
     (sym_object_pattern, STATE 3182), (sym__outer_pattern, STATE 3410),
     (sym_pattern_assignment, STATE 908), (sym_type_parameters, STATE 2932),
     (sym__type_name, STATE 2661), (sym__formal_parameter_part, STATE 2339),
     (sym_formal_parameter_list, STATE 2020), (sym__strict_formal_parameter_list, STATE 2016),
     (sym__new_builtin, STATE 2079), (sym_this, STATE 962), (sym_super, STATE 1337),
     (sym_comment, STATE 230), (sym_documentation_comment, STATE 230),
     (aux_sym_string_literal_repeat1, STATE 474), (sym_identifier, ACTIONS 494),
     (anon_sym_POUND, ACTIONS 73), (sym_decimal_integer_literal, ACTIONS 75),
     (sym_hex_integer_literal, ACTIONS 77), (sym_decimal_floating_point_literal, ACTIONS 75),
     (anon_sym_true, ACTIONS 79), (anon_sym_false, ACTIONS 81), (anon_sym_DQUOTE, ACTIONS 83),
     (anon_sym_SQUOTE, ACTIONS 85), (anon_sym_DQUOTE_DQUOTE_DQUOTE, ACTIONS 87),
     (anon_sym_SQUOTE_SQUOTE_SQUOTE, ACTIONS 89), (anon_sym_r_DQUOTE, ACTIONS 91),
     (anon_sym_r_SQUOTE, ACTIONS 93), (anon_sym_r_DQUOTE_DQUOTE_DQUOTE, ACTIONS 95),
     (anon_sym_r_SQUOTE_SQUOTE_SQUOTE, ACTIONS 97), (anon_sym_LBRACE, ACTIONS 442),
     (anon_sym_LBRACK, ACTIONS 103), (anon_sym_null, ACTIONS 105),
     (anon_sym_LPAREN, ACTIONS 498), (anon_sym_throw, ACTIONS 109), (anon_sym_LT, ACTIONS 111),
     (sym_increment_operator, ACTIONS 113), (sym_minus_operator, ACTIONS 117),
     (anon_sym_BANG, ACTIONS 119), (anon_sym_TILDE, ACTIONS 121), (anon_sym_await, ACTIONS 432),
     (anon_sym_switch, ACTIONS 412), (sym_rethrow_builtin, ACTIONS 151),
     (anon_sym_new, ACTIONS 155), (sym_const_builtin, ACTIONS 478), (anon_sym_this, ACTIONS 159),
     (anon_sym_super, ACTIONS 161), (anon_sym_SLASH_SLASH, ACTIONS 3),
     (anon_sym_SLASH_STAR, ACTIONS 5), (anon_sym_SLASH_SLASH_SLASH, ACTIONS 7),
     (sym__block_comment, ACTIONS 9), (sym__documentation_block_comment, ACTIONS 11)]"

lemma row_ok_230: "table_row_ok 230 ts_parse_table_230"
  by (simp add: row_simps ts_parse_table_230_def)

definition ts_parse_table_231 :: table_row where
  "ts_parse_table_231 = [
     (sym__bool_literal, STATE 989), (sym__numeric_literal, STATE 989),
     (sym__literal, STATE 962), (sym_symbol_literal, STATE 989), (sym_true, STATE 900),
     (sym_false, STATE 900), (sym_string_literal, STATE 989),
     (sym__string_literal_double_quotes, STATE 627),
     (sym__string_literal_single_quotes, STATE 627),
     (sym__string_literal_double_quotes_multiple, STATE 627),
     (sym__string_literal_single_quotes_multiple, STATE 627),
     (sym__raw_string_literal_double_quotes, STATE 627),
     (sym__raw_string_literal_single_quotes, STATE 627),
     (sym__raw_string_literal_double_quotes_multiple, STATE 627),
     (sym__raw_string_literal_single_quotes_multiple, STATE 627), (sym_list_literal, STATE 989),
     (sym_set_or_map_literal, STATE 989), (sym_null_literal, STATE 989),
     (sym_record_literal, STATE 989), (sym__record_literal_no_const, STATE 924),
     (sym__expression, STATE 3436), (sym__real_expression, STATE 660),
     (sym_throw_expression, STATE 908), (sym_rethrow_expression, STATE 908),
     (sym_assignment_expression, STATE 908), (sym_assignable_expression, STATE 1940),
     (sym_function_expression, STATE 962), (sym_if_null_expression, STATE 1477),
     (sym_conditional_expression, STATE 1477), (sym_logical_or_expression, STATE 1477),
     (sym_logical_and_expression, STATE 1477), (sym_equality_expression, STATE 1477),
     (sym_type_cast_expression, STATE 1477), (sym_type_test_expression, STATE 1477),
     (sym_relational_expression, STATE 1477), (sym_bitwise_or_expression, STATE 1477),
     (sym_bitwise_xor_expression, STATE 1477), (sym_bitwise_and_expression, STATE 1477),
     (sym_shift_expression, STATE 1477), (sym_additive_expression, STATE 1477),
     (sym_multiplicative_expression, STATE 1477), (sym__unary_expression, STATE 1121),
     (sym_unary_expression, STATE 1303), (sym__postfix_expression, STATE 1303),
     (sym_postfix_expression, STATE 1301), (sym_prefix_operator, STATE 431),
     (sym_negation_operator, STATE 1450), (sym__exclamation_operator, STATE 1451),
     (sym_tilde_operator, STATE 1385), (sym_await_expression, STATE 1302),
     (sym_new_expression, STATE 962), (sym_const_object_expression, STATE 962),
     (sym__primary, STATE 668), (sym_parenthesized_expression, STATE 962),
     (sym_constructor_invocation, STATE 643), (sym_constructor_tearoff, STATE 962),
     (sym_type_arguments, STATE 3200), (sym_switch_expression, STATE 962),
     (sym__parenthesized_pattern, STATE 3182), (sym_list_pattern, STATE 3182),
     (sym_map_pattern, STATE 3182), (sym_record_pattern, STATE 3182),
     (sym_object_pattern, STATE 3182), (sym__outer_pattern, STATE 3410),
     (sym_pattern_assignment, STATE 908), (sym_type_parameters, STATE 2932),
     (sym__type_name, STATE 2661), (sym__formal_parameter_part, STATE 2339),
     (sym_formal_parameter_list, STATE 2020), (sym__strict_formal_parameter_list, STATE 2016),
     (sym__new_builtin, STATE 2079), (sym_this, STATE 962), (sym_super, STATE 1337),
     (sym_comment, STATE 231), (sym_documentation_comment, STATE 231),
     (aux_sym_string_literal_repeat1, STATE 474), (sym_identifier, ACTIONS 494),
     (anon_sym_POUND, ACTIONS 73), (sym_decimal_integer_literal, ACTIONS 75),
     (sym_hex_integer_literal, ACTIONS 77), (sym_decimal_floating_point_literal, ACTIONS 75),
     (anon_sym_true, ACTIONS 79), (anon_sym_false, ACTIONS 81), (anon_sym_DQUOTE, ACTIONS 83),
     (anon_sym_SQUOTE, ACTIONS 85), (anon_sym_DQUOTE_DQUOTE_DQUOTE, ACTIONS 87),
     (anon_sym_SQUOTE_SQUOTE_SQUOTE, ACTIONS 89), (anon_sym_r_DQUOTE, ACTIONS 91),
     (anon_sym_r_SQUOTE, ACTIONS 93), (anon_sym_r_DQUOTE_DQUOTE_DQUOTE, ACTIONS 95),
     (anon_sym_r_SQUOTE_SQUOTE_SQUOTE, ACTIONS 97), (anon_sym_LBRACE, ACTIONS 442),
     (anon_sym_LBRACK, ACTIONS 103), (anon_sym_null, ACTIONS 105),
     (anon_sym_LPAREN, ACTIONS 498), (anon_sym_throw, ACTIONS 109), (anon_sym_LT, ACTIONS 111),
     (sym_increment_operator, ACTIONS 113), (sym_minus_operator, ACTIONS 117),
     (anon_sym_BANG, ACTIONS 119), (anon_sym_TILDE, ACTIONS 121), (anon_sym_await, ACTIONS 432),
     (anon_sym_switch, ACTIONS 412), (sym_rethrow_builtin, ACTIONS 151),
     (anon_sym_new, ACTIONS 155), (sym_const_builtin, ACTIONS 478), (anon_sym_this, ACTIONS 159),
     (anon_sym_super, ACTIONS 161), (anon_sym_SLASH_SLASH, ACTIONS 3),
     (anon_sym_SLASH_STAR, ACTIONS 5), (anon_sym_SLASH_SLASH_SLASH, ACTIONS 7),
     (sym__block_comment, ACTIONS 9), (sym__documentation_block_comment, ACTIONS 11)]"

lemma row_ok_231: "table_row_ok 231 ts_parse_table_231"
  by (simp add: row_simps ts_parse_table_231_def)

definition ts_parse_table_232 :: table_row where
  "ts_parse_table_232 = [
     (sym__bool_literal, STATE 989), (sym__numeric_literal, STATE 989),
     (sym__literal, STATE 962), (sym_symbol_literal, STATE 989), (sym_true, STATE 900),
     (sym_false, STATE 900), (sym_string_literal, STATE 989),
     (sym__string_literal_double_quotes, STATE 627),
     (sym__string_literal_single_quotes, STATE 627),
     (sym__string_literal_double_quotes_multiple, STATE 627),
     (sym__string_literal_single_quotes_multiple, STATE 627),
     (sym__raw_string_literal_double_quotes, STATE 627),
     (sym__raw_string_literal_single_quotes, STATE 627),
     (sym__raw_string_literal_double_quotes_multiple, STATE 627),
     (sym__raw_string_literal_single_quotes_multiple, STATE 627), (sym_list_literal, STATE 989),
     (sym_set_or_map_literal, STATE 989), (sym_null_literal, STATE 989),
     (sym_record_literal, STATE 989), (sym__record_literal_no_const, STATE 924),
     (sym__expression, STATE 3329), (sym__real_expression, STATE 660),
     (sym_throw_expression, STATE 908), (sym_rethrow_expression, STATE 908),
     (sym_assignment_expression, STATE 908), (sym_assignable_expression, STATE 1940),
     (sym_function_expression, STATE 962), (sym_if_null_expression, STATE 1477),
     (sym_conditional_expression, STATE 1477), (sym_logical_or_expression, STATE 1477),
     (sym_logical_and_expression, STATE 1477), (sym_equality_expression, STATE 1477),
     (sym_type_cast_expression, STATE 1477), (sym_type_test_expression, STATE 1477),
     (sym_relational_expression, STATE 1477), (sym_bitwise_or_expression, STATE 1477),
     (sym_bitwise_xor_expression, STATE 1477), (sym_bitwise_and_expression, STATE 1477),
     (sym_shift_expression, STATE 1477), (sym_additive_expression, STATE 1477),
     (sym_multiplicative_expression, STATE 1477), (sym__unary_expression, STATE 1121),
     (sym_unary_expression, STATE 1303), (sym__postfix_expression, STATE 1303),
     (sym_postfix_expression, STATE 1301), (sym_prefix_operator, STATE 431),
     (sym_negation_operator, STATE 1450), (sym__exclamation_operator, STATE 1451),
     (sym_tilde_operator, STATE 1385), (sym_await_expression, STATE 1302),
     (sym_new_expression, STATE 962), (sym_const_object_expression, STATE 962),
     (sym__primary, STATE 668), (sym_parenthesized_expression, STATE 962),
     (sym_constructor_invocation, STATE 643), (sym_constructor_tearoff, STATE 962),
     (sym_type_arguments, STATE 3200), (sym_switch_expression, STATE 962),
     (sym__parenthesized_pattern, STATE 3182), (sym_list_pattern, STATE 3182),
     (sym_map_pattern, STATE 3182), (sym_record_pattern, STATE 3182),
     (sym_object_pattern, STATE 3182), (sym__outer_pattern, STATE 3410),
     (sym_pattern_assignment, STATE 908), (sym_type_parameters, STATE 2932),
     (sym__type_name, STATE 2661), (sym__formal_parameter_part, STATE 2339),
     (sym_formal_parameter_list, STATE 2020), (sym__strict_formal_parameter_list, STATE 2016),
     (sym__new_builtin, STATE 2079), (sym_this, STATE 962), (sym_super, STATE 1337),
     (sym_comment, STATE 232), (sym_documentation_comment, STATE 232),
     (aux_sym_string_literal_repeat1, STATE 474), (sym_identifier, ACTIONS 494),
     (anon_sym_POUND, ACTIONS 73), (sym_decimal_integer_literal, ACTIONS 75),
     (sym_hex_integer_literal, ACTIONS 77), (sym_decimal_floating_point_literal, ACTIONS 75),
     (anon_sym_true, ACTIONS 79), (anon_sym_false, ACTIONS 81), (anon_sym_DQUOTE, ACTIONS 83),
     (anon_sym_SQUOTE, ACTIONS 85), (anon_sym_DQUOTE_DQUOTE_DQUOTE, ACTIONS 87),
     (anon_sym_SQUOTE_SQUOTE_SQUOTE, ACTIONS 89), (anon_sym_r_DQUOTE, ACTIONS 91),
     (anon_sym_r_SQUOTE, ACTIONS 93), (anon_sym_r_DQUOTE_DQUOTE_DQUOTE, ACTIONS 95),
     (anon_sym_r_SQUOTE_SQUOTE_SQUOTE, ACTIONS 97), (anon_sym_LBRACE, ACTIONS 442),
     (anon_sym_LBRACK, ACTIONS 103), (anon_sym_null, ACTIONS 105),
     (anon_sym_LPAREN, ACTIONS 498), (anon_sym_throw, ACTIONS 109), (anon_sym_LT, ACTIONS 111),
     (sym_increment_operator, ACTIONS 113), (sym_minus_operator, ACTIONS 117),
     (anon_sym_BANG, ACTIONS 119), (anon_sym_TILDE, ACTIONS 121), (anon_sym_await, ACTIONS 432),
     (anon_sym_switch, ACTIONS 412), (sym_rethrow_builtin, ACTIONS 151),
     (anon_sym_new, ACTIONS 155), (sym_const_builtin, ACTIONS 478), (anon_sym_this, ACTIONS 159),
     (anon_sym_super, ACTIONS 161), (anon_sym_SLASH_SLASH, ACTIONS 3),
     (anon_sym_SLASH_STAR, ACTIONS 5), (anon_sym_SLASH_SLASH_SLASH, ACTIONS 7),
     (sym__block_comment, ACTIONS 9), (sym__documentation_block_comment, ACTIONS 11)]"

lemma row_ok_232: "table_row_ok 232 ts_parse_table_232"
  by (simp add: row_simps ts_parse_table_232_def)

definition ts_parse_table_233 :: table_row where
  "ts_parse_table_233 = [
     (sym__bool_literal, STATE 989), (sym__numeric_literal, STATE 989),
     (sym__literal, STATE 962), (sym_symbol_literal, STATE 989), (sym_true, STATE 900),
     (sym_false, STATE 900), (sym_string_literal, STATE 989),
     (sym__string_literal_double_quotes, STATE 627),
     (sym__string_literal_single_quotes, STATE 627),
     (sym__string_literal_double_quotes_multiple, STATE 627),
     (sym__string_literal_single_quotes_multiple, STATE 627),
     (sym__raw_string_literal_double_quotes, STATE 627),
     (sym__raw_string_literal_single_quotes, STATE 627),
     (sym__raw_string_literal_double_quotes_multiple, STATE 627),
     (sym__raw_string_literal_single_quotes_multiple, STATE 627), (sym_list_literal, STATE 989),
     (sym_set_or_map_literal, STATE 989), (sym_null_literal, STATE 989),
     (sym_record_literal, STATE 989), (sym__record_literal_no_const, STATE 924),
     (sym__expression, STATE 941), (sym__real_expression, STATE 660),
     (sym_throw_expression, STATE 908), (sym_rethrow_expression, STATE 908),
     (sym_assignment_expression, STATE 908), (sym_assignable_expression, STATE 1940),
     (sym_function_expression, STATE 962), (sym_if_null_expression, STATE 1477),
     (sym_conditional_expression, STATE 1477), (sym_logical_or_expression, STATE 1477),
     (sym_logical_and_expression, STATE 1477), (sym_equality_expression, STATE 1477),
     (sym_type_cast_expression, STATE 1477), (sym_type_test_expression, STATE 1477),
     (sym_relational_expression, STATE 1477), (sym_bitwise_or_expression, STATE 1477),
     (sym_bitwise_xor_expression, STATE 1477), (sym_bitwise_and_expression, STATE 1477),
     (sym_shift_expression, STATE 1477), (sym_additive_expression, STATE 1477),
     (sym_multiplicative_expression, STATE 1477), (sym__unary_expression, STATE 1121),
     (sym_unary_expression, STATE 1303), (sym__postfix_expression, STATE 1303),
     (sym_postfix_expression, STATE 1301), (sym_prefix_operator, STATE 431),
     (sym_negation_operator, STATE 1450), (sym__exclamation_operator, STATE 1451),
     (sym_tilde_operator, STATE 1385), (sym_await_expression, STATE 1302),
     (sym_new_expression, STATE 962), (sym_const_object_expression, STATE 962),
     (sym__primary, STATE 668), (sym_parenthesized_expression, STATE 962),
     (sym_constructor_invocation, STATE 643), (sym_constructor_tearoff, STATE 962),
     (sym_type_arguments, STATE 3200), (sym_switch_expression, STATE 962),
     (sym__parenthesized_pattern, STATE 3182), (sym_list_pattern, STATE 3182),
     (sym_map_pattern, STATE 3182), (sym_record_pattern, STATE 3182),
     (sym_object_pattern, STATE 3182), (sym__outer_pattern, STATE 3410),
     (sym_pattern_assignment, STATE 908), (sym_type_parameters, STATE 2932),
     (sym__type_name, STATE 2661), (sym__formal_parameter_part, STATE 2339),
     (sym_formal_parameter_list, STATE 2020), (sym__strict_formal_parameter_list, STATE 2016),
     (sym__new_builtin, STATE 2079), (sym_this, STATE 962), (sym_super, STATE 1337),
     (sym_comment, STATE 233), (sym_documentation_comment, STATE 233),
     (aux_sym_string_literal_repeat1, STATE 474), (sym_identifier, ACTIONS 494),
     (anon_sym_POUND, ACTIONS 73), (sym_decimal_integer_literal, ACTIONS 75),
     (sym_hex_integer_literal, ACTIONS 77), (sym_decimal_floating_point_literal, ACTIONS 75),
     (anon_sym_true, ACTIONS 79), (anon_sym_false, ACTIONS 81), (anon_sym_DQUOTE, ACTIONS 83),
     (anon_sym_SQUOTE, ACTIONS 85), (anon_sym_DQUOTE_DQUOTE_DQUOTE, ACTIONS 87),
     (anon_sym_SQUOTE_SQUOTE_SQUOTE, ACTIONS 89), (anon_sym_r_DQUOTE, ACTIONS 91),
     (anon_sym_r_SQUOTE, ACTIONS 93), (anon_sym_r_DQUOTE_DQUOTE_DQUOTE, ACTIONS 95),
     (anon_sym_r_SQUOTE_SQUOTE_SQUOTE, ACTIONS 97), (anon_sym_LBRACE, ACTIONS 442),
     (anon_sym_LBRACK, ACTIONS 103), (anon_sym_null, ACTIONS 105),
     (anon_sym_LPAREN, ACTIONS 498), (anon_sym_throw, ACTIONS 109), (anon_sym_LT, ACTIONS 111),
     (sym_increment_operator, ACTIONS 113), (sym_minus_operator, ACTIONS 117),
     (anon_sym_BANG, ACTIONS 119), (anon_sym_TILDE, ACTIONS 121), (anon_sym_await, ACTIONS 432),
     (anon_sym_switch, ACTIONS 412), (sym_rethrow_builtin, ACTIONS 151),
     (anon_sym_new, ACTIONS 155), (sym_const_builtin, ACTIONS 478), (anon_sym_this, ACTIONS 159),
     (anon_sym_super, ACTIONS 161), (anon_sym_SLASH_SLASH, ACTIONS 3),
     (anon_sym_SLASH_STAR, ACTIONS 5), (anon_sym_SLASH_SLASH_SLASH, ACTIONS 7),
     (sym__block_comment, ACTIONS 9), (sym__documentation_block_comment, ACTIONS 11)]"

lemma row_ok_233: "table_row_ok 233 ts_parse_table_233"
  by (simp add: row_simps ts_parse_table_233_def)

definition ts_parse_table_234 :: table_row where
  "ts_parse_table_234 = [
     (sym__bool_literal, STATE 989), (sym__numeric_literal, STATE 989),
     (sym__literal, STATE 962), (sym_symbol_literal, STATE 989), (sym_true, STATE 900),
     (sym_false, STATE 900), (sym_string_literal, STATE 989),
     (sym__string_literal_double_quotes, STATE 627),
     (sym__string_literal_single_quotes, STATE 627),
     (sym__string_literal_double_quotes_multiple, STATE 627),
     (sym__string_literal_single_quotes_multiple, STATE 627),
     (sym__raw_string_literal_double_quotes, STATE 627),
     (sym__raw_string_literal_single_quotes, STATE 627),
     (sym__raw_string_literal_double_quotes_multiple, STATE 627),
     (sym__raw_string_literal_single_quotes_multiple, STATE 627), (sym_list_literal, STATE 989),
     (sym_set_or_map_literal, STATE 989), (sym_null_literal, STATE 989),
     (sym_record_literal, STATE 989), (sym__record_literal_no_const, STATE 924),
     (sym__expression, STATE 2978), (sym__real_expression, STATE 660),
     (sym_throw_expression, STATE 908), (sym_rethrow_expression, STATE 908),
     (sym_assignment_expression, STATE 908), (sym_assignable_expression, STATE 1940),
     (sym_function_expression, STATE 962), (sym_if_null_expression, STATE 1477),
     (sym_conditional_expression, STATE 1477), (sym_logical_or_expression, STATE 1477),
     (sym_logical_and_expression, STATE 1477), (sym_equality_expression, STATE 1477),
     (sym_type_cast_expression, STATE 1477), (sym_type_test_expression, STATE 1477),
     (sym_relational_expression, STATE 1477), (sym_bitwise_or_expression, STATE 1477),
     (sym_bitwise_xor_expression, STATE 1477), (sym_bitwise_and_expression, STATE 1477),
     (sym_shift_expression, STATE 1477), (sym_additive_expression, STATE 1477),
     (sym_multiplicative_expression, STATE 1477), (sym__unary_expression, STATE 1121),
     (sym_unary_expression, STATE 1303), (sym__postfix_expression, STATE 1303),
     (sym_postfix_expression, STATE 1301), (sym_prefix_operator, STATE 431),
     (sym_negation_operator, STATE 1450), (sym__exclamation_operator, STATE 1451),
     (sym_tilde_operator, STATE 1385), (sym_await_expression, STATE 1302),
     (sym_new_expression, STATE 962), (sym_const_object_expression, STATE 962),
     (sym__primary, STATE 668), (sym_parenthesized_expression, STATE 962),
     (sym_constructor_invocation, STATE 643), (sym_constructor_tearoff, STATE 962),
     (sym_type_arguments, STATE 3200), (sym_switch_expression, STATE 962),
     (sym__parenthesized_pattern, STATE 3182), (sym_list_pattern, STATE 3182),
     (sym_map_pattern, STATE 3182), (sym_record_pattern, STATE 3182),
     (sym_object_pattern, STATE 3182), (sym__outer_pattern, STATE 3410),
     (sym_pattern_assignment, STATE 908), (sym_type_parameters, STATE 2932),
     (sym__type_name, STATE 2661), (sym__formal_parameter_part, STATE 2339),
     (sym_formal_parameter_list, STATE 2020), (sym__strict_formal_parameter_list, STATE 2016),
     (sym__new_builtin, STATE 2079), (sym_this, STATE 962), (sym_super, STATE 1337),
     (sym_comment, STATE 234), (sym_documentation_comment, STATE 234),
     (aux_sym_string_literal_repeat1, STATE 474), (sym_identifier, ACTIONS 494),
     (anon_sym_POUND, ACTIONS 73), (sym_decimal_integer_literal, ACTIONS 75),
     (sym_hex_integer_literal, ACTIONS 77), (sym_decimal_floating_point_literal, ACTIONS 75),
     (anon_sym_true, ACTIONS 79), (anon_sym_false, ACTIONS 81), (anon_sym_DQUOTE, ACTIONS 83),
     (anon_sym_SQUOTE, ACTIONS 85), (anon_sym_DQUOTE_DQUOTE_DQUOTE, ACTIONS 87),
     (anon_sym_SQUOTE_SQUOTE_SQUOTE, ACTIONS 89), (anon_sym_r_DQUOTE, ACTIONS 91),
     (anon_sym_r_SQUOTE, ACTIONS 93), (anon_sym_r_DQUOTE_DQUOTE_DQUOTE, ACTIONS 95),
     (anon_sym_r_SQUOTE_SQUOTE_SQUOTE, ACTIONS 97), (anon_sym_LBRACE, ACTIONS 442),
     (anon_sym_LBRACK, ACTIONS 103), (anon_sym_null, ACTIONS 105),
     (anon_sym_LPAREN, ACTIONS 498), (anon_sym_throw, ACTIONS 109), (anon_sym_LT, ACTIONS 111),
     (sym_increment_operator, ACTIONS 113), (sym_minus_operator, ACTIONS 117),
     (anon_sym_BANG, ACTIONS 119), (anon_sym_TILDE, ACTIONS 121), (anon_sym_await, ACTIONS 432),
     (anon_sym_switch, ACTIONS 412), (sym_rethrow_builtin, ACTIONS 151),
     (anon_sym_new, ACTIONS 155), (sym_const_builtin, ACTIONS 478), (anon_sym_this, ACTIONS 159),
     (anon_sym_super, ACTIONS 161), (anon_sym_SLASH_SLASH, ACTIONS 3),
     (anon_sym_SLASH_STAR, ACTIONS 5), (anon_sym_SLASH_SLASH_SLASH, ACTIONS 7),
     (sym__block_comment, ACTIONS 9), (sym__documentation_block_comment, ACTIONS 11)]"

lemma row_ok_234: "table_row_ok 234 ts_parse_table_234"
  by (simp add: row_simps ts_parse_table_234_def)

definition ts_parse_table_235 :: table_row where
  "ts_parse_table_235 = [
     (sym__bool_literal, STATE 989), (sym__numeric_literal, STATE 989),
     (sym__literal, STATE 962), (sym_symbol_literal, STATE 989), (sym_true, STATE 900),
     (sym_false, STATE 900), (sym_string_literal, STATE 989),
     (sym__string_literal_double_quotes, STATE 627),
     (sym__string_literal_single_quotes, STATE 627),
     (sym__string_literal_double_quotes_multiple, STATE 627),
     (sym__string_literal_single_quotes_multiple, STATE 627),
     (sym__raw_string_literal_double_quotes, STATE 627),
     (sym__raw_string_literal_single_quotes, STATE 627),
     (sym__raw_string_literal_double_quotes_multiple, STATE 627),
     (sym__raw_string_literal_single_quotes_multiple, STATE 627), (sym_list_literal, STATE 989),
     (sym_set_or_map_literal, STATE 989), (sym_null_literal, STATE 989),
     (sym_record_literal, STATE 989), (sym__record_literal_no_const, STATE 924),
     (sym__expression, STATE 3091), (sym__real_expression, STATE 660),
     (sym_throw_expression, STATE 908), (sym_rethrow_expression, STATE 908),
     (sym_assignment_expression, STATE 908), (sym_assignable_expression, STATE 1940),
     (sym_function_expression, STATE 962), (sym_if_null_expression, STATE 1477),
     (sym_conditional_expression, STATE 1477), (sym_logical_or_expression, STATE 1477),
     (sym_logical_and_expression, STATE 1477), (sym_equality_expression, STATE 1477),
     (sym_type_cast_expression, STATE 1477), (sym_type_test_expression, STATE 1477),
     (sym_relational_expression, STATE 1477), (sym_bitwise_or_expression, STATE 1477),
     (sym_bitwise_xor_expression, STATE 1477), (sym_bitwise_and_expression, STATE 1477),
     (sym_shift_expression, STATE 1477), (sym_additive_expression, STATE 1477),
     (sym_multiplicative_expression, STATE 1477), (sym__unary_expression, STATE 1121),
     (sym_unary_expression, STATE 1303), (sym__postfix_expression, STATE 1303),
     (sym_postfix_expression, STATE 1301), (sym_prefix_operator, STATE 431),
     (sym_negation_operator, STATE 1450), (sym__exclamation_operator, STATE 1451),
     (sym_tilde_operator, STATE 1385), (sym_await_expression, STATE 1302),
     (sym_new_expression, STATE 962), (sym_const_object_expression, STATE 962),
     (sym__primary, STATE 668), (sym_parenthesized_expression, STATE 962),
     (sym_constructor_invocation, STATE 643), (sym_constructor_tearoff, STATE 962),
     (sym_type_arguments, STATE 3200), (sym_switch_expression, STATE 962),
     (sym__parenthesized_pattern, STATE 3182), (sym_list_pattern, STATE 3182),
     (sym_map_pattern, STATE 3182), (sym_record_pattern, STATE 3182),
     (sym_object_pattern, STATE 3182), (sym__outer_pattern, STATE 3410),
     (sym_pattern_assignment, STATE 908), (sym_type_parameters, STATE 2932),
     (sym__type_name, STATE 2661), (sym__formal_parameter_part, STATE 2339),
     (sym_formal_parameter_list, STATE 2020), (sym__strict_formal_parameter_list, STATE 2016),
     (sym__new_builtin, STATE 2079), (sym_this, STATE 962), (sym_super, STATE 1337),
     (sym_comment, STATE 235), (sym_documentation_comment, STATE 235),
     (aux_sym_string_literal_repeat1, STATE 474), (sym_identifier, ACTIONS 494),
     (anon_sym_POUND, ACTIONS 73), (sym_decimal_integer_literal, ACTIONS 75),
     (sym_hex_integer_literal, ACTIONS 77), (sym_decimal_floating_point_literal, ACTIONS 75),
     (anon_sym_true, ACTIONS 79), (anon_sym_false, ACTIONS 81), (anon_sym_DQUOTE, ACTIONS 83),
     (anon_sym_SQUOTE, ACTIONS 85), (anon_sym_DQUOTE_DQUOTE_DQUOTE, ACTIONS 87),
     (anon_sym_SQUOTE_SQUOTE_SQUOTE, ACTIONS 89), (anon_sym_r_DQUOTE, ACTIONS 91),
     (anon_sym_r_SQUOTE, ACTIONS 93), (anon_sym_r_DQUOTE_DQUOTE_DQUOTE, ACTIONS 95),
     (anon_sym_r_SQUOTE_SQUOTE_SQUOTE, ACTIONS 97), (anon_sym_LBRACE, ACTIONS 442),
     (anon_sym_LBRACK, ACTIONS 103), (anon_sym_null, ACTIONS 105),
     (anon_sym_LPAREN, ACTIONS 498), (anon_sym_throw, ACTIONS 109), (anon_sym_LT, ACTIONS 111),
     (sym_increment_operator, ACTIONS 113), (sym_minus_operator, ACTIONS 117),
     (anon_sym_BANG, ACTIONS 119), (anon_sym_TILDE, ACTIONS 121), (anon_sym_await, ACTIONS 432),
     (anon_sym_switch, ACTIONS 412), (sym_rethrow_builtin, ACTIONS 151),
     (anon_sym_new, ACTIONS 155), (sym_const_builtin, ACTIONS 478), (anon_sym_this, ACTIONS 159),
     (anon_sym_super, ACTIONS 161), (anon_sym_SLASH_SLASH, ACTIONS 3),
     (anon_sym_SLASH_STAR, ACTIONS 5), (anon_sym_SLASH_SLASH_SLASH, ACTIONS 7),
     (sym__block_comment, ACTIONS 9), (sym__documentation_block_comment, ACTIONS 11)]"

lemma row_ok_235: "table_row_ok 235 ts_parse_table_235"
  by (simp add: row_simps ts_parse_table_235_def)

definition ts_parse_table_236 :: table_row where
  "ts_parse_table_236 = [
     (sym__bool_literal, STATE 989), (sym__numeric_literal, STATE 989),
     (sym__literal, STATE 962), (sym_symbol_literal, STATE 989), (sym_true, STATE 900),
     (sym_false, STATE 900), (sym_string_literal, STATE 989),
     (sym__string_literal_double_quotes, STATE 627),
     (sym__string_literal_single_quotes, STATE 627),
     (sym__string_literal_double_quotes_multiple, STATE 627),
     (sym__string_literal_single_quotes_multiple, STATE 627),
     (sym__raw_string_literal_double_quotes, STATE 627),
     (sym__raw_string_literal_single_quotes, STATE 627),
     (sym__raw_string_literal_double_quotes_multiple, STATE 627),
     (sym__raw_string_literal_single_quotes_multiple, STATE 627), (sym_list_literal, STATE 989),
     (sym_set_or_map_literal, STATE 989), (sym_null_literal, STATE 989),
     (sym_record_literal, STATE 989), (sym__record_literal_no_const, STATE 924),
     (sym__expression, STATE 3278), (sym__real_expression, STATE 660),
     (sym_throw_expression, STATE 908), (sym_rethrow_expression, STATE 908),
     (sym_assignment_expression, STATE 908), (sym_assignable_expression, STATE 1940),
     (sym_function_expression, STATE 962), (sym_if_null_expression, STATE 1477),
     (sym_conditional_expression, STATE 1477), (sym_logical_or_expression, STATE 1477),
     (sym_logical_and_expression, STATE 1477), (sym_equality_expression, STATE 1477),
     (sym_type_cast_expression, STATE 1477), (sym_type_test_expression, STATE 1477),
     (sym_relational_expression, STATE 1477), (sym_bitwise_or_expression, STATE 1477),
     (sym_bitwise_xor_expression, STATE 1477), (sym_bitwise_and_expression, STATE 1477),
     (sym_shift_expression, STATE 1477), (sym_additive_expression, STATE 1477),
     (sym_multiplicative_expression, STATE 1477), (sym__unary_expression, STATE 1121),
     (sym_unary_expression, STATE 1303), (sym__postfix_expression, STATE 1303),
     (sym_postfix_expression, STATE 1301), (sym_prefix_operator, STATE 431),
     (sym_negation_operator, STATE 1450), (sym__exclamation_operator, STATE 1451),
     (sym_tilde_operator, STATE 1385), (sym_await_expression, STATE 1302),
     (sym_new_expression, STATE 962), (sym_const_object_expression, STATE 962),
     (sym__primary, STATE 668), (sym_parenthesized_expression, STATE 962),
     (sym_constructor_invocation, STATE 643), (sym_constructor_tearoff, STATE 962),
     (sym_type_arguments, STATE 3200), (sym_switch_expression, STATE 962),
     (sym__parenthesized_pattern, STATE 3182), (sym_list_pattern, STATE 3182),
     (sym_map_pattern, STATE 3182), (sym_record_pattern, STATE 3182),
     (sym_object_pattern, STATE 3182), (sym__outer_pattern, STATE 3410),
     (sym_pattern_assignment, STATE 908), (sym_type_parameters, STATE 2932),
     (sym__type_name, STATE 2661), (sym__formal_parameter_part, STATE 2339),
     (sym_formal_parameter_list, STATE 2020), (sym__strict_formal_parameter_list, STATE 2016),
     (sym__new_builtin, STATE 2079), (sym_this, STATE 962), (sym_super, STATE 1337),
     (sym_comment, STATE 236), (sym_documentation_comment, STATE 236),
     (aux_sym_string_literal_repeat1, STATE 474), (sym_identifier, ACTIONS 494),
     (anon_sym_POUND, ACTIONS 73), (sym_decimal_integer_literal, ACTIONS 75),
     (sym_hex_integer_literal, ACTIONS 77), (sym_decimal_floating_point_literal, ACTIONS 75),
     (anon_sym_true, ACTIONS 79), (anon_sym_false, ACTIONS 81), (anon_sym_DQUOTE, ACTIONS 83),
     (anon_sym_SQUOTE, ACTIONS 85), (anon_sym_DQUOTE_DQUOTE_DQUOTE, ACTIONS 87),
     (anon_sym_SQUOTE_SQUOTE_SQUOTE, ACTIONS 89), (anon_sym_r_DQUOTE, ACTIONS 91),
     (anon_sym_r_SQUOTE, ACTIONS 93), (anon_sym_r_DQUOTE_DQUOTE_DQUOTE, ACTIONS 95),
     (anon_sym_r_SQUOTE_SQUOTE_SQUOTE, ACTIONS 97), (anon_sym_LBRACE, ACTIONS 442),
     (anon_sym_LBRACK, ACTIONS 103), (anon_sym_null, ACTIONS 105),
     (anon_sym_LPAREN, ACTIONS 498), (anon_sym_throw, ACTIONS 109), (anon_sym_LT, ACTIONS 111),
     (sym_increment_operator, ACTIONS 113), (sym_minus_operator, ACTIONS 117),
     (anon_sym_BANG, ACTIONS 119), (anon_sym_TILDE, ACTIONS 121), (anon_sym_await, ACTIONS 432),
     (anon_sym_switch, ACTIONS 412), (sym_rethrow_builtin, ACTIONS 151),
     (anon_sym_new, ACTIONS 155), (sym_const_builtin, ACTIONS 478), (anon_sym_this, ACTIONS 159),
     (anon_sym_super, ACTIONS 161), (anon_sym_SLASH_SLASH, ACTIONS 3),
     (anon_sym_SLASH_STAR, ACTIONS 5), (anon_sym_SLASH_SLASH_SLASH, ACTIONS 7),
     (sym__block_comment, ACTIONS 9), (sym__documentation_block_comment, ACTIONS 11)]"

lemma row_ok_236: "table_row_ok 236 ts_parse_table_236"
  by (simp add: row_simps ts_parse_table_236_def)

definition ts_parse_table_237 :: table_row where
  "ts_parse_table_237 = [
     (sym__bool_literal, STATE 989), (sym__numeric_literal, STATE 989),
     (sym__literal, STATE 962), (sym_symbol_literal, STATE 989), (sym_true, STATE 900),
     (sym_false, STATE 900), (sym_string_literal, STATE 989),
     (sym__string_literal_double_quotes, STATE 627),
     (sym__string_literal_single_quotes, STATE 627),
     (sym__string_literal_double_quotes_multiple, STATE 627),
     (sym__string_literal_single_quotes_multiple, STATE 627),
     (sym__raw_string_literal_double_quotes, STATE 627),
     (sym__raw_string_literal_single_quotes, STATE 627),
     (sym__raw_string_literal_double_quotes_multiple, STATE 627),
     (sym__raw_string_literal_single_quotes_multiple, STATE 627), (sym_list_literal, STATE 989),
     (sym_set_or_map_literal, STATE 989), (sym_null_literal, STATE 989),
     (sym_record_literal, STATE 989), (sym__record_literal_no_const, STATE 924),
     (sym__expression, STATE 921), (sym__real_expression, STATE 481),
     (sym_throw_expression, STATE 908), (sym_rethrow_expression, STATE 908),
     (sym_assignment_expression, STATE 908), (sym_assignable_expression, STATE 1955),
     (sym_function_expression, STATE 962), (sym_if_null_expression, STATE 996),
     (sym_conditional_expression, STATE 996), (sym_logical_or_expression, STATE 996),
     (sym_logical_and_expression, STATE 996), (sym_equality_expression, STATE 996),
     (sym_type_cast_expression, STATE 996), (sym_type_test_expression, STATE 996),
     (sym_relational_expression, STATE 996), (sym_bitwise_or_expression, STATE 996),
     (sym_bitwise_xor_expression, STATE 996), (sym_bitwise_and_expression, STATE 996),
     (sym_shift_expression, STATE 996), (sym_additive_expression, STATE 996),
     (sym_multiplicative_expression, STATE 996), (sym__unary_expression, STATE 787),
     (sym_unary_expression, STATE 994), (sym__postfix_expression, STATE 994),
     (sym_postfix_expression, STATE 993), (sym_prefix_operator, STATE 421),
     (sym_negation_operator, STATE 1450), (sym__exclamation_operator, STATE 1451),
     (sym_tilde_operator, STATE 1357), (sym_await_expression, STATE 991),
     (sym_new_expression, STATE 962), (sym_const_object_expression, STATE 962),
     (sym__primary, STATE 648), (sym_parenthesized_expression, STATE 962),
     (sym_constructor_invocation, STATE 643), (sym_constructor_tearoff, STATE 962),
     (sym_type_arguments, STATE 3200), (sym_switch_expression, STATE 962),
     (sym__parenthesized_pattern, STATE 3182), (sym_list_pattern, STATE 3182),
     (sym_map_pattern, STATE 3182), (sym_record_pattern, STATE 3182),
     (sym_object_pattern, STATE 3182), (sym__outer_pattern, STATE 3395),
     (sym_pattern_assignment, STATE 908), (sym_type_parameters, STATE 2932),
     (sym__type_name, STATE 2661), (sym__formal_parameter_part, STATE 2339),
     (sym_formal_parameter_list, STATE 2020), (sym__strict_formal_parameter_list, STATE 2016),
     (sym__new_builtin, STATE 2079), (sym_this, STATE 962), (sym_super, STATE 1338),
     (sym_comment, STATE 237), (sym_documentation_comment, STATE 237),
     (aux_sym_string_literal_repeat1, STATE 474), (sym_identifier, ACTIONS 494),
     (anon_sym_POUND, ACTIONS 73), (sym_decimal_integer_literal, ACTIONS 75),
     (sym_hex_integer_literal, ACTIONS 77), (sym_decimal_floating_point_literal, ACTIONS 75),
     (anon_sym_true, ACTIONS 79), (anon_sym_false, ACTIONS 81), (anon_sym_DQUOTE, ACTIONS 83),
     (anon_sym_SQUOTE, ACTIONS 85), (anon_sym_DQUOTE_DQUOTE_DQUOTE, ACTIONS 87),
     (anon_sym_SQUOTE_SQUOTE_SQUOTE, ACTIONS 89), (anon_sym_r_DQUOTE, ACTIONS 91),
     (anon_sym_r_SQUOTE, ACTIONS 93), (anon_sym_r_DQUOTE_DQUOTE_DQUOTE, ACTIONS 95),
     (anon_sym_r_SQUOTE_SQUOTE_SQUOTE, ACTIONS 97), (anon_sym_LBRACE, ACTIONS 442),
     (anon_sym_LBRACK, ACTIONS 103), (anon_sym_null, ACTIONS 105),
     (anon_sym_LPAREN, ACTIONS 498), (anon_sym_throw, ACTIONS 748), (anon_sym_LT, ACTIONS 111),
     (sym_increment_operator, ACTIONS 688), (sym_minus_operator, ACTIONS 690),
     (anon_sym_BANG, ACTIONS 119), (anon_sym_TILDE, ACTIONS 121), (anon_sym_await, ACTIONS 692),
     (anon_sym_switch, ACTIONS 412), (sym_rethrow_builtin, ACTIONS 151),
     (anon_sym_new, ACTIONS 155), (sym_const_builtin, ACTIONS 478), (anon_sym_this, ACTIONS 159),
     (anon_sym_super, ACTIONS 161), (anon_sym_SLASH_SLASH, ACTIONS 3),
     (anon_sym_SLASH_STAR, ACTIONS 5), (anon_sym_SLASH_SLASH_SLASH, ACTIONS 7),
     (sym__block_comment, ACTIONS 9), (sym__documentation_block_comment, ACTIONS 11)]"

lemma row_ok_237: "table_row_ok 237 ts_parse_table_237"
  by (simp add: row_simps ts_parse_table_237_def)

definition ts_parse_table_238 :: table_row where
  "ts_parse_table_238 = [
     (sym__bool_literal, STATE 989), (sym__numeric_literal, STATE 989),
     (sym__literal, STATE 962), (sym_symbol_literal, STATE 989), (sym_true, STATE 900),
     (sym_false, STATE 900), (sym_string_literal, STATE 989),
     (sym__string_literal_double_quotes, STATE 627),
     (sym__string_literal_single_quotes, STATE 627),
     (sym__string_literal_double_quotes_multiple, STATE 627),
     (sym__string_literal_single_quotes_multiple, STATE 627),
     (sym__raw_string_literal_double_quotes, STATE 627),
     (sym__raw_string_literal_single_quotes, STATE 627),
     (sym__raw_string_literal_double_quotes_multiple, STATE 627),
     (sym__raw_string_literal_single_quotes_multiple, STATE 627), (sym_list_literal, STATE 989),
     (sym_set_or_map_literal, STATE 989), (sym_null_literal, STATE 989),
     (sym_record_literal, STATE 989), (sym__record_literal_no_const, STATE 924),
     (sym__expression, STATE 3218), (sym__real_expression, STATE 660),
     (sym_throw_expression, STATE 908), (sym_rethrow_expression, STATE 908),
     (sym_assignment_expression, STATE 908), (sym_assignable_expression, STATE 1940),
     (sym_function_expression, STATE 962), (sym_if_null_expression, STATE 1477),
     (sym_conditional_expression, STATE 1477), (sym_logical_or_expression, STATE 1477),
     (sym_logical_and_expression, STATE 1477), (sym_equality_expression, STATE 1477),
     (sym_type_cast_expression, STATE 1477), (sym_type_test_expression, STATE 1477),
     (sym_relational_expression, STATE 1477), (sym_bitwise_or_expression, STATE 1477),
     (sym_bitwise_xor_expression, STATE 1477), (sym_bitwise_and_expression, STATE 1477),
     (sym_shift_expression, STATE 1477), (sym_additive_expression, STATE 1477),
     (sym_multiplicative_expression, STATE 1477), (sym__unary_expression, STATE 1121),
     (sym_unary_expression, STATE 1303), (sym__postfix_expression, STATE 1303),
     (sym_postfix_expression, STATE 1301), (sym_prefix_operator, STATE 431),
     (sym_negation_operator, STATE 1450), (sym__exclamation_operator, STATE 1451),
     (sym_tilde_operator, STATE 1385), (sym_await_expression, STATE 1302),
     (sym_new_expression, STATE 962), (sym_const_object_expression, STATE 962),
     (sym__primary, STATE 668), (sym_parenthesized_expression, STATE 962),
     (sym_constructor_invocation, STATE 643), (sym_constructor_tearoff, STATE 962),
     (sym_type_arguments, STATE 3200), (sym_switch_expression, STATE 962),
     (sym__parenthesized_pattern, STATE 3182), (sym_list_pattern, STATE 3182),
     (sym_map_pattern, STATE 3182), (sym_record_pattern, STATE 3182),
     (sym_object_pattern, STATE 3182), (sym__outer_pattern, STATE 3410),
     (sym_pattern_assignment, STATE 908), (sym_type_parameters, STATE 2932),
     (sym__type_name, STATE 2661), (sym__formal_parameter_part, STATE 2339),
     (sym_formal_parameter_list, STATE 2020), (sym__strict_formal_parameter_list, STATE 2016),
     (sym__new_builtin, STATE 2079), (sym_this, STATE 962), (sym_super, STATE 1337),
     (sym_comment, STATE 238), (sym_documentation_comment, STATE 238),
     (aux_sym_string_literal_repeat1, STATE 474), (sym_identifier, ACTIONS 494),
     (anon_sym_POUND, ACTIONS 73), (sym_decimal_integer_literal, ACTIONS 75),
     (sym_hex_integer_literal, ACTIONS 77), (sym_decimal_floating_point_literal, ACTIONS 75),
     (anon_sym_true, ACTIONS 79), (anon_sym_false, ACTIONS 81), (anon_sym_DQUOTE, ACTIONS 83),
     (anon_sym_SQUOTE, ACTIONS 85), (anon_sym_DQUOTE_DQUOTE_DQUOTE, ACTIONS 87),
     (anon_sym_SQUOTE_SQUOTE_SQUOTE, ACTIONS 89), (anon_sym_r_DQUOTE, ACTIONS 91),
     (anon_sym_r_SQUOTE, ACTIONS 93), (anon_sym_r_DQUOTE_DQUOTE_DQUOTE, ACTIONS 95),
     (anon_sym_r_SQUOTE_SQUOTE_SQUOTE, ACTIONS 97), (anon_sym_LBRACE, ACTIONS 442),
     (anon_sym_LBRACK, ACTIONS 103), (anon_sym_null, ACTIONS 105),
     (anon_sym_LPAREN, ACTIONS 498), (anon_sym_throw, ACTIONS 109), (anon_sym_LT, ACTIONS 111),
     (sym_increment_operator, ACTIONS 113), (sym_minus_operator, ACTIONS 117),
     (anon_sym_BANG, ACTIONS 119), (anon_sym_TILDE, ACTIONS 121), (anon_sym_await, ACTIONS 432),
     (anon_sym_switch, ACTIONS 412), (sym_rethrow_builtin, ACTIONS 151),
     (anon_sym_new, ACTIONS 155), (sym_const_builtin, ACTIONS 478), (anon_sym_this, ACTIONS 159),
     (anon_sym_super, ACTIONS 161), (anon_sym_SLASH_SLASH, ACTIONS 3),
     (anon_sym_SLASH_STAR, ACTIONS 5), (anon_sym_SLASH_SLASH_SLASH, ACTIONS 7),
     (sym__block_comment, ACTIONS 9), (sym__documentation_block_comment, ACTIONS 11)]"

lemma row_ok_238: "table_row_ok 238 ts_parse_table_238"
  by (simp add: row_simps ts_parse_table_238_def)

definition ts_parse_table_239 :: table_row where
  "ts_parse_table_239 = [
     (sym__bool_literal, STATE 989), (sym__numeric_literal, STATE 989),
     (sym__literal, STATE 962), (sym_symbol_literal, STATE 989), (sym_true, STATE 900),
     (sym_false, STATE 900), (sym_string_literal, STATE 989),
     (sym__string_literal_double_quotes, STATE 627),
     (sym__string_literal_single_quotes, STATE 627),
     (sym__string_literal_double_quotes_multiple, STATE 627),
     (sym__string_literal_single_quotes_multiple, STATE 627),
     (sym__raw_string_literal_double_quotes, STATE 627),
     (sym__raw_string_literal_single_quotes, STATE 627),
     (sym__raw_string_literal_double_quotes_multiple, STATE 627),
     (sym__raw_string_literal_single_quotes_multiple, STATE 627), (sym_list_literal, STATE 989),
     (sym_set_or_map_literal, STATE 989), (sym_null_literal, STATE 989),
     (sym_record_literal, STATE 989), (sym__record_literal_no_const, STATE 924),
     (sym__expression, STATE 1003), (sym__real_expression, STATE 481),
     (sym_throw_expression, STATE 908), (sym_rethrow_expression, STATE 908),
     (sym_assignment_expression, STATE 908), (sym_assignable_expression, STATE 1955),
     (sym_function_expression, STATE 962), (sym_if_null_expression, STATE 996),
     (sym_conditional_expression, STATE 996), (sym_logical_or_expression, STATE 996),
     (sym_logical_and_expression, STATE 996), (sym_equality_expression, STATE 996),
     (sym_type_cast_expression, STATE 996), (sym_type_test_expression, STATE 996),
     (sym_relational_expression, STATE 996), (sym_bitwise_or_expression, STATE 996),
     (sym_bitwise_xor_expression, STATE 996), (sym_bitwise_and_expression, STATE 996),
     (sym_shift_expression, STATE 996), (sym_additive_expression, STATE 996),
     (sym_multiplicative_expression, STATE 996), (sym__unary_expression, STATE 787),
     (sym_unary_expression, STATE 994), (sym__postfix_expression, STATE 994),
     (sym_postfix_expression, STATE 993), (sym_prefix_operator, STATE 421),
     (sym_negation_operator, STATE 1450), (sym__exclamation_operator, STATE 1451),
     (sym_tilde_operator, STATE 1357), (sym_await_expression, STATE 991),
     (sym_new_expression, STATE 962), (sym_const_object_expression, STATE 962),
     (sym__primary, STATE 648), (sym_parenthesized_expression, STATE 962),
     (sym_constructor_invocation, STATE 643), (sym_constructor_tearoff, STATE 962),
     (sym_type_arguments, STATE 3200), (sym_switch_expression, STATE 962),
     (sym__parenthesized_pattern, STATE 3182), (sym_list_pattern, STATE 3182),
     (sym_map_pattern, STATE 3182), (sym_record_pattern, STATE 3182),
     (sym_object_pattern, STATE 3182), (sym__outer_pattern, STATE 3395),
     (sym_pattern_assignment, STATE 908), (sym_type_parameters, STATE 2932),
     (sym__type_name, STATE 2661), (sym__formal_parameter_part, STATE 2339),
     (sym_formal_parameter_list, STATE 2020), (sym__strict_formal_parameter_list, STATE 2016),
     (sym__new_builtin, STATE 2079), (sym_this, STATE 962), (sym_super, STATE 1338),
     (sym_comment, STATE 239), (sym_documentation_comment, STATE 239),
     (aux_sym_string_literal_repeat1, STATE 474), (sym_identifier, ACTIONS 494),
     (anon_sym_POUND, ACTIONS 73), (sym_decimal_integer_literal, ACTIONS 75),
     (sym_hex_integer_literal, ACTIONS 77), (sym_decimal_floating_point_literal, ACTIONS 75),
     (anon_sym_true, ACTIONS 79), (anon_sym_false, ACTIONS 81), (anon_sym_DQUOTE, ACTIONS 83),
     (anon_sym_SQUOTE, ACTIONS 85), (anon_sym_DQUOTE_DQUOTE_DQUOTE, ACTIONS 87),
     (anon_sym_SQUOTE_SQUOTE_SQUOTE, ACTIONS 89), (anon_sym_r_DQUOTE, ACTIONS 91),
     (anon_sym_r_SQUOTE, ACTIONS 93), (anon_sym_r_DQUOTE_DQUOTE_DQUOTE, ACTIONS 95),
     (anon_sym_r_SQUOTE_SQUOTE_SQUOTE, ACTIONS 97), (anon_sym_LBRACE, ACTIONS 442),
     (anon_sym_LBRACK, ACTIONS 103), (anon_sym_null, ACTIONS 105),
     (anon_sym_LPAREN, ACTIONS 498), (anon_sym_throw, ACTIONS 748), (anon_sym_LT, ACTIONS 111),
     (sym_increment_operator, ACTIONS 688), (sym_minus_operator, ACTIONS 690),
     (anon_sym_BANG, ACTIONS 119), (anon_sym_TILDE, ACTIONS 121), (anon_sym_await, ACTIONS 692),
     (anon_sym_switch, ACTIONS 412), (sym_rethrow_builtin, ACTIONS 151),
     (anon_sym_new, ACTIONS 155), (sym_const_builtin, ACTIONS 478), (anon_sym_this, ACTIONS 159),
     (anon_sym_super, ACTIONS 161), (anon_sym_SLASH_SLASH, ACTIONS 3),
     (anon_sym_SLASH_STAR, ACTIONS 5), (anon_sym_SLASH_SLASH_SLASH, ACTIONS 7),
     (sym__block_comment, ACTIONS 9), (sym__documentation_block_comment, ACTIONS 11)]"

lemma row_ok_239: "table_row_ok 239 ts_parse_table_239"
  by (simp add: row_simps ts_parse_table_239_def)

definition ts_parse_table_240 :: table_row where
  "ts_parse_table_240 = [
     (sym__bool_literal, STATE 989), (sym__numeric_literal, STATE 989),
     (sym__literal, STATE 962), (sym_symbol_literal, STATE 989), (sym_true, STATE 900),
     (sym_false, STATE 900), (sym_string_literal, STATE 989),
     (sym__string_literal_double_quotes, STATE 627),
     (sym__string_literal_single_quotes, STATE 627),
     (sym__string_literal_double_quotes_multiple, STATE 627),
     (sym__string_literal_single_quotes_multiple, STATE 627),
     (sym__raw_string_literal_double_quotes, STATE 627),
     (sym__raw_string_literal_single_quotes, STATE 627),
     (sym__raw_string_literal_double_quotes_multiple, STATE 627),
     (sym__raw_string_literal_single_quotes_multiple, STATE 627), (sym_list_literal, STATE 989),
     (sym_set_or_map_literal, STATE 989), (sym_null_literal, STATE 989),
     (sym_record_literal, STATE 989), (sym__record_literal_no_const, STATE 924),
     (sym__expression, STATE 3362), (sym__real_expression, STATE 660),
     (sym_throw_expression, STATE 908), (sym_rethrow_expression, STATE 908),
     (sym_assignment_expression, STATE 908), (sym_assignable_expression, STATE 1940),
     (sym_function_expression, STATE 962), (sym_if_null_expression, STATE 1477),
     (sym_conditional_expression, STATE 1477), (sym_logical_or_expression, STATE 1477),
     (sym_logical_and_expression, STATE 1477), (sym_equality_expression, STATE 1477),
     (sym_type_cast_expression, STATE 1477), (sym_type_test_expression, STATE 1477),
     (sym_relational_expression, STATE 1477), (sym_bitwise_or_expression, STATE 1477),
     (sym_bitwise_xor_expression, STATE 1477), (sym_bitwise_and_expression, STATE 1477),
     (sym_shift_expression, STATE 1477), (sym_additive_expression, STATE 1477),
     (sym_multiplicative_expression, STATE 1477), (sym__unary_expression, STATE 1121),
     (sym_unary_expression, STATE 1303), (sym__postfix_expression, STATE 1303),
     (sym_postfix_expression, STATE 1301), (sym_prefix_operator, STATE 431),
     (sym_negation_operator, STATE 1450), (sym__exclamation_operator, STATE 1451),
     (sym_tilde_operator, STATE 1385), (sym_await_expression, STATE 1302),
     (sym_new_expression, STATE 962), (sym_const_object_expression, STATE 962),
     (sym__primary, STATE 668), (sym_parenthesized_expression, STATE 962),
     (sym_constructor_invocation, STATE 643), (sym_constructor_tearoff, STATE 962),
     (sym_type_arguments, STATE 3200), (sym_switch_expression, STATE 962),
     (sym__parenthesized_pattern, STATE 3182), (sym_list_pattern, STATE 3182),
     (sym_map_pattern, STATE 3182), (sym_record_pattern, STATE 3182),
     (sym_object_pattern, STATE 3182), (sym__outer_pattern, STATE 3410),
     (sym_pattern_assignment, STATE 908), (sym_type_parameters, STATE 2932),
     (sym__type_name, STATE 2661), (sym__formal_parameter_part, STATE 2339),
     (sym_formal_parameter_list, STATE 2020), (sym__strict_formal_parameter_list, STATE 2016),
     (sym__new_builtin, STATE 2079), (sym_this, STATE 962), (sym_super, STATE 1337),
     (sym_comment, STATE 240), (sym_documentation_comment, STATE 240),
     (aux_sym_string_literal_repeat1, STATE 474), (sym_identifier, ACTIONS 494),
     (anon_sym_POUND, ACTIONS 73), (sym_decimal_integer_literal, ACTIONS 75),
     (sym_hex_integer_literal, ACTIONS 77), (sym_decimal_floating_point_literal, ACTIONS 75),
     (anon_sym_true, ACTIONS 79), (anon_sym_false, ACTIONS 81), (anon_sym_DQUOTE, ACTIONS 83),
     (anon_sym_SQUOTE, ACTIONS 85), (anon_sym_DQUOTE_DQUOTE_DQUOTE, ACTIONS 87),
     (anon_sym_SQUOTE_SQUOTE_SQUOTE, ACTIONS 89), (anon_sym_r_DQUOTE, ACTIONS 91),
     (anon_sym_r_SQUOTE, ACTIONS 93), (anon_sym_r_DQUOTE_DQUOTE_DQUOTE, ACTIONS 95),
     (anon_sym_r_SQUOTE_SQUOTE_SQUOTE, ACTIONS 97), (anon_sym_LBRACE, ACTIONS 442),
     (anon_sym_LBRACK, ACTIONS 103), (anon_sym_null, ACTIONS 105),
     (anon_sym_LPAREN, ACTIONS 498), (anon_sym_throw, ACTIONS 109), (anon_sym_LT, ACTIONS 111),
     (sym_increment_operator, ACTIONS 113), (sym_minus_operator, ACTIONS 117),
     (anon_sym_BANG, ACTIONS 119), (anon_sym_TILDE, ACTIONS 121), (anon_sym_await, ACTIONS 432),
     (anon_sym_switch, ACTIONS 412), (sym_rethrow_builtin, ACTIONS 151),
     (anon_sym_new, ACTIONS 155), (sym_const_builtin, ACTIONS 478), (anon_sym_this, ACTIONS 159),
     (anon_sym_super, ACTIONS 161), (anon_sym_SLASH_SLASH, ACTIONS 3),
     (anon_sym_SLASH_STAR, ACTIONS 5), (anon_sym_SLASH_SLASH_SLASH, ACTIONS 7),
     (sym__block_comment, ACTIONS 9), (sym__documentation_block_comment, ACTIONS 11)]"

lemma row_ok_240: "table_row_ok 240 ts_parse_table_240"
  by (simp add: row_simps ts_parse_table_240_def)

definition ts_parse_table_241 :: table_row where
  "ts_parse_table_241 = [
     (sym__bool_literal, STATE 989), (sym__numeric_literal, STATE 989),
     (sym__literal, STATE 962), (sym_symbol_literal, STATE 989), (sym_true, STATE 900),
     (sym_false, STATE 900), (sym_string_literal, STATE 989),
     (sym__string_literal_double_quotes, STATE 627),
     (sym__string_literal_single_quotes, STATE 627),
     (sym__string_literal_double_quotes_multiple, STATE 627),
     (sym__string_literal_single_quotes_multiple, STATE 627),
     (sym__raw_string_literal_double_quotes, STATE 627),
     (sym__raw_string_literal_single_quotes, STATE 627),
     (sym__raw_string_literal_double_quotes_multiple, STATE 627),
     (sym__raw_string_literal_single_quotes_multiple, STATE 627), (sym_list_literal, STATE 989),
     (sym_set_or_map_literal, STATE 989), (sym_null_literal, STATE 989),
     (sym_record_literal, STATE 989), (sym__record_literal_no_const, STATE 924),
     (sym__expression, STATE 1292), (sym__real_expression, STATE 510),
     (sym_throw_expression, STATE 1267), (sym_rethrow_expression, STATE 1267),
     (sym_assignment_expression, STATE 1267), (sym_assignable_expression, STATE 1956),
     (sym_function_expression, STATE 962), (sym_if_null_expression, STATE 996),
     (sym_conditional_expression, STATE 996), (sym_logical_or_expression, STATE 996),
     (sym_logical_and_expression, STATE 996), (sym_equality_expression, STATE 996),
     (sym_type_cast_expression, STATE 996), (sym_type_test_expression, STATE 996),
     (sym_relational_expression, STATE 996), (sym_bitwise_or_expression, STATE 996),
     (sym_bitwise_xor_expression, STATE 996), (sym_bitwise_and_expression, STATE 996),
     (sym_shift_expression, STATE 996), (sym_additive_expression, STATE 996),
     (sym_multiplicative_expression, STATE 996), (sym__unary_expression, STATE 787),
     (sym_unary_expression, STATE 994), (sym__postfix_expression, STATE 994),
     (sym_postfix_expression, STATE 993), (sym_prefix_operator, STATE 421),
     (sym_negation_operator, STATE 1450), (sym__exclamation_operator, STATE 1451),
     (sym_tilde_operator, STATE 1357), (sym_await_expression, STATE 991),
     (sym_new_expression, STATE 962), (sym_const_object_expression, STATE 962),
     (sym__primary, STATE 648), (sym_parenthesized_expression, STATE 962),
     (sym_constructor_invocation, STATE 643), (sym_constructor_tearoff, STATE 962),
     (sym_type_arguments, STATE 3200), (sym_switch_expression, STATE 962),
     (sym__parenthesized_pattern, STATE 3182), (sym_list_pattern, STATE 3182),
     (sym_map_pattern, STATE 3182), (sym_record_pattern, STATE 3182),
     (sym_object_pattern, STATE 3182), (sym__outer_pattern, STATE 3409),
     (sym_pattern_assignment, STATE 1267), (sym_type_parameters, STATE 2932),
     (sym__type_name, STATE 2661), (sym__formal_parameter_part, STATE 2339),
     (sym_formal_parameter_list, STATE 2020), (sym__strict_formal_parameter_list, STATE 2016),
     (sym__new_builtin, STATE 2079), (sym_this, STATE 962), (sym_super, STATE 1338),
     (sym_comment, STATE 241), (sym_documentation_comment, STATE 241),
     (aux_sym_string_literal_repeat1, STATE 474), (sym_identifier, ACTIONS 494),
     (anon_sym_POUND, ACTIONS 73), (sym_decimal_integer_literal, ACTIONS 75),
     (sym_hex_integer_literal, ACTIONS 77), (sym_decimal_floating_point_literal, ACTIONS 75),
     (anon_sym_true, ACTIONS 79), (anon_sym_false, ACTIONS 81), (anon_sym_DQUOTE, ACTIONS 83),
     (anon_sym_SQUOTE, ACTIONS 85), (anon_sym_DQUOTE_DQUOTE_DQUOTE, ACTIONS 87),
     (anon_sym_SQUOTE_SQUOTE_SQUOTE, ACTIONS 89), (anon_sym_r_DQUOTE, ACTIONS 91),
     (anon_sym_r_SQUOTE, ACTIONS 93), (anon_sym_r_DQUOTE_DQUOTE_DQUOTE, ACTIONS 95),
     (anon_sym_r_SQUOTE_SQUOTE_SQUOTE, ACTIONS 97), (anon_sym_LBRACE, ACTIONS 442),
     (anon_sym_LBRACK, ACTIONS 103), (anon_sym_null, ACTIONS 105),
     (anon_sym_LPAREN, ACTIONS 498), (anon_sym_throw, ACTIONS 686), (anon_sym_LT, ACTIONS 111),
     (sym_increment_operator, ACTIONS 688), (sym_minus_operator, ACTIONS 690),
     (anon_sym_BANG, ACTIONS 119), (anon_sym_TILDE, ACTIONS 121), (anon_sym_await, ACTIONS 692),
     (anon_sym_switch, ACTIONS 412), (sym_rethrow_builtin, ACTIONS 694),
     (anon_sym_new, ACTIONS 155), (sym_const_builtin, ACTIONS 478), (anon_sym_this, ACTIONS 159),
     (anon_sym_super, ACTIONS 161), (anon_sym_SLASH_SLASH, ACTIONS 3),
     (anon_sym_SLASH_STAR, ACTIONS 5), (anon_sym_SLASH_SLASH_SLASH, ACTIONS 7),
     (sym__block_comment, ACTIONS 9), (sym__documentation_block_comment, ACTIONS 11)]"

lemma row_ok_241: "table_row_ok 241 ts_parse_table_241"
  by (simp add: row_simps ts_parse_table_241_def)

definition ts_parse_table_242 :: table_row where
  "ts_parse_table_242 = [
     (sym__bool_literal, STATE 989), (sym__numeric_literal, STATE 989),
     (sym__literal, STATE 962), (sym_symbol_literal, STATE 989), (sym_true, STATE 900),
     (sym_false, STATE 900), (sym_string_literal, STATE 989),
     (sym__string_literal_double_quotes, STATE 627),
     (sym__string_literal_single_quotes, STATE 627),
     (sym__string_literal_double_quotes_multiple, STATE 627),
     (sym__string_literal_single_quotes_multiple, STATE 627),
     (sym__raw_string_literal_double_quotes, STATE 627),
     (sym__raw_string_literal_single_quotes, STATE 627),
     (sym__raw_string_literal_double_quotes_multiple, STATE 627),
     (sym__raw_string_literal_single_quotes_multiple, STATE 627), (sym_list_literal, STATE 989),
     (sym_set_or_map_literal, STATE 989), (sym_null_literal, STATE 989),
     (sym_record_literal, STATE 989), (sym__record_literal_no_const, STATE 924),
     (sym__expression, STATE 3222), (sym__real_expression, STATE 660),
     (sym_throw_expression, STATE 908), (sym_rethrow_expression, STATE 908),
     (sym_assignment_expression, STATE 908), (sym_assignable_expression, STATE 1940),
     (sym_function_expression, STATE 962), (sym_if_null_expression, STATE 1477),
     (sym_conditional_expression, STATE 1477), (sym_logical_or_expression, STATE 1477),
     (sym_logical_and_expression, STATE 1477), (sym_equality_expression, STATE 1477),
     (sym_type_cast_expression, STATE 1477), (sym_type_test_expression, STATE 1477),
     (sym_relational_expression, STATE 1477), (sym_bitwise_or_expression, STATE 1477),
     (sym_bitwise_xor_expression, STATE 1477), (sym_bitwise_and_expression, STATE 1477),
     (sym_shift_expression, STATE 1477), (sym_additive_expression, STATE 1477),
     (sym_multiplicative_expression, STATE 1477), (sym__unary_expression, STATE 1121),
     (sym_unary_expression, STATE 1303), (sym__postfix_expression, STATE 1303),
     (sym_postfix_expression, STATE 1301), (sym_prefix_operator, STATE 431),
     (sym_negation_operator, STATE 1450), (sym__exclamation_operator, STATE 1451),
     (sym_tilde_operator, STATE 1385), (sym_await_expression, STATE 1302),
     (sym_new_expression, STATE 962), (sym_const_object_expression, STATE 962),
     (sym__primary, STATE 668), (sym_parenthesized_expression, STATE 962),
     (sym_constructor_invocation, STATE 643), (sym_constructor_tearoff, STATE 962),
     (sym_type_arguments, STATE 3200), (sym_switch_expression, STATE 962),
     (sym__parenthesized_pattern, STATE 3182), (sym_list_pattern, STATE 3182),
     (sym_map_pattern, STATE 3182), (sym_record_pattern, STATE 3182),
     (sym_object_pattern, STATE 3182), (sym__outer_pattern, STATE 3410),
     (sym_pattern_assignment, STATE 908), (sym_type_parameters, STATE 2932),
     (sym__type_name, STATE 2661), (sym__formal_parameter_part, STATE 2339),
     (sym_formal_parameter_list, STATE 2020), (sym__strict_formal_parameter_list, STATE 2016),
     (sym__new_builtin, STATE 2079), (sym_this, STATE 962), (sym_super, STATE 1337),
     (sym_comment, STATE 242), (sym_documentation_comment, STATE 242),
     (aux_sym_string_literal_repeat1, STATE 474), (sym_identifier, ACTIONS 494),
     (anon_sym_POUND, ACTIONS 73), (sym_decimal_integer_literal, ACTIONS 75),
     (sym_hex_integer_literal, ACTIONS 77), (sym_decimal_floating_point_literal, ACTIONS 75),
     (anon_sym_true, ACTIONS 79), (anon_sym_false, ACTIONS 81), (anon_sym_DQUOTE, ACTIONS 83),
     (anon_sym_SQUOTE, ACTIONS 85), (anon_sym_DQUOTE_DQUOTE_DQUOTE, ACTIONS 87),
     (anon_sym_SQUOTE_SQUOTE_SQUOTE, ACTIONS 89), (anon_sym_r_DQUOTE, ACTIONS 91),
     (anon_sym_r_SQUOTE, ACTIONS 93), (anon_sym_r_DQUOTE_DQUOTE_DQUOTE, ACTIONS 95),
     (anon_sym_r_SQUOTE_SQUOTE_SQUOTE, ACTIONS 97), (anon_sym_LBRACE, ACTIONS 442),
     (anon_sym_LBRACK, ACTIONS 103), (anon_sym_null, ACTIONS 105),
     (anon_sym_LPAREN, ACTIONS 498), (anon_sym_throw, ACTIONS 109), (anon_sym_LT, ACTIONS 111),
     (sym_increment_operator, ACTIONS 113), (sym_minus_operator, ACTIONS 117),
     (anon_sym_BANG, ACTIONS 119), (anon_sym_TILDE, ACTIONS 121), (anon_sym_await, ACTIONS 432),
     (anon_sym_switch, ACTIONS 412), (sym_rethrow_builtin, ACTIONS 151),
     (anon_sym_new, ACTIONS 155), (sym_const_builtin, ACTIONS 478), (anon_sym_this, ACTIONS 159),
     (anon_sym_super, ACTIONS 161), (anon_sym_SLASH_SLASH, ACTIONS 3),
     (anon_sym_SLASH_STAR, ACTIONS 5), (anon_sym_SLASH_SLASH_SLASH, ACTIONS 7),
     (sym__block_comment, ACTIONS 9), (sym__documentation_block_comment, ACTIONS 11)]"

lemma row_ok_242: "table_row_ok 242 ts_parse_table_242"
  by (simp add: row_simps ts_parse_table_242_def)

definition ts_parse_table_243 :: table_row where
  "ts_parse_table_243 = [
     (sym__bool_literal, STATE 989), (sym__numeric_literal, STATE 989),
     (sym__literal, STATE 962), (sym_symbol_literal, STATE 989), (sym_true, STATE 900),
     (sym_false, STATE 900), (sym_string_literal, STATE 989),
     (sym__string_literal_double_quotes, STATE 627),
     (sym__string_literal_single_quotes, STATE 627),
     (sym__string_literal_double_quotes_multiple, STATE 627),
     (sym__string_literal_single_quotes_multiple, STATE 627),
     (sym__raw_string_literal_double_quotes, STATE 627),
     (sym__raw_string_literal_single_quotes, STATE 627),
     (sym__raw_string_literal_double_quotes_multiple, STATE 627),
     (sym__raw_string_literal_single_quotes_multiple, STATE 627), (sym_list_literal, STATE 989),
     (sym_set_or_map_literal, STATE 989), (sym_null_literal, STATE 989),
     (sym_record_literal, STATE 989), (sym__record_literal_no_const, STATE 924),
     (sym__expression, STATE 3217), (sym__real_expression, STATE 660),
     (sym_throw_expression, STATE 908), (sym_rethrow_expression, STATE 908),
     (sym_assignment_expression, STATE 908), (sym_assignable_expression, STATE 1940),
     (sym_function_expression, STATE 962), (sym_if_null_expression, STATE 1477),
     (sym_conditional_expression, STATE 1477), (sym_logical_or_expression, STATE 1477),
     (sym_logical_and_expression, STATE 1477), (sym_equality_expression, STATE 1477),
     (sym_type_cast_expression, STATE 1477), (sym_type_test_expression, STATE 1477),
     (sym_relational_expression, STATE 1477), (sym_bitwise_or_expression, STATE 1477),
     (sym_bitwise_xor_expression, STATE 1477), (sym_bitwise_and_expression, STATE 1477),
     (sym_shift_expression, STATE 1477), (sym_additive_expression, STATE 1477),
     (sym_multiplicative_expression, STATE 1477), (sym__unary_expression, STATE 1121),
     (sym_unary_expression, STATE 1303), (sym__postfix_expression, STATE 1303),
     (sym_postfix_expression, STATE 1301), (sym_prefix_operator, STATE 431),
     (sym_negation_operator, STATE 1450), (sym__exclamation_operator, STATE 1451),
     (sym_tilde_operator, STATE 1385), (sym_await_expression, STATE 1302),
     (sym_new_expression, STATE 962), (sym_const_object_expression, STATE 962),
     (sym__primary, STATE 668), (sym_parenthesized_expression, STATE 962),
     (sym_constructor_invocation, STATE 643), (sym_constructor_tearoff, STATE 962),
     (sym_type_arguments, STATE 3200), (sym_switch_expression, STATE 962),
     (sym__parenthesized_pattern, STATE 3182), (sym_list_pattern, STATE 3182),
     (sym_map_pattern, STATE 3182), (sym_record_pattern, STATE 3182),
     (sym_object_pattern, STATE 3182), (sym__outer_pattern, STATE 3410),
     (sym_pattern_assignment, STATE 908), (sym_type_parameters, STATE 2932),
     (sym__type_name, STATE 2661), (sym__formal_parameter_part, STATE 2339),
     (sym_formal_parameter_list, STATE 2020), (sym__strict_formal_parameter_list, STATE 2016),
     (sym__new_builtin, STATE 2079), (sym_this, STATE 962), (sym_super, STATE 1337),
     (sym_comment, STATE 243), (sym_documentation_comment, STATE 243),
     (aux_sym_string_literal_repeat1, STATE 474), (sym_identifier, ACTIONS 494),
     (anon_sym_POUND, ACTIONS 73), (sym_decimal_integer_literal, ACTIONS 75),
     (sym_hex_integer_literal, ACTIONS 77), (sym_decimal_floating_point_literal, ACTIONS 75),
     (anon_sym_true, ACTIONS 79), (anon_sym_false, ACTIONS 81), (anon_sym_DQUOTE, ACTIONS 83),
     (anon_sym_SQUOTE, ACTIONS 85), (anon_sym_DQUOTE_DQUOTE_DQUOTE, ACTIONS 87),
     (anon_sym_SQUOTE_SQUOTE_SQUOTE, ACTIONS 89), (anon_sym_r_DQUOTE, ACTIONS 91),
     (anon_sym_r_SQUOTE, ACTIONS 93), (anon_sym_r_DQUOTE_DQUOTE_DQUOTE, ACTIONS 95),
     (anon_sym_r_SQUOTE_SQUOTE_SQUOTE, ACTIONS 97), (anon_sym_LBRACE, ACTIONS 442),
     (anon_sym_LBRACK, ACTIONS 103), (anon_sym_null, ACTIONS 105),
     (anon_sym_LPAREN, ACTIONS 498), (anon_sym_throw, ACTIONS 109), (anon_sym_LT, ACTIONS 111),
     (sym_increment_operator, ACTIONS 113), (sym_minus_operator, ACTIONS 117),
     (anon_sym_BANG, ACTIONS 119), (anon_sym_TILDE, ACTIONS 121), (anon_sym_await, ACTIONS 432),
     (anon_sym_switch, ACTIONS 412), (sym_rethrow_builtin, ACTIONS 151),
     (anon_sym_new, ACTIONS 155), (sym_const_builtin, ACTIONS 478), (anon_sym_this, ACTIONS 159),
     (anon_sym_super, ACTIONS 161), (anon_sym_SLASH_SLASH, ACTIONS 3),
     (anon_sym_SLASH_STAR, ACTIONS 5), (anon_sym_SLASH_SLASH_SLASH, ACTIONS 7),
     (sym__block_comment, ACTIONS 9), (sym__documentation_block_comment, ACTIONS 11)]"

lemma row_ok_243: "table_row_ok 243 ts_parse_table_243"
  by (simp add: row_simps ts_parse_table_243_def)

definition ts_parse_table_244 :: table_row where
  "ts_parse_table_244 = [
     (sym__bool_literal, STATE 989), (sym__numeric_literal, STATE 989),
     (sym__literal, STATE 962), (sym_symbol_literal, STATE 989), (sym_true, STATE 900),
     (sym_false, STATE 900), (sym_string_literal, STATE 989),
     (sym__string_literal_double_quotes, STATE 627),
     (sym__string_literal_single_quotes, STATE 627),
     (sym__string_literal_double_quotes_multiple, STATE 627),
     (sym__string_literal_single_quotes_multiple, STATE 627),
     (sym__raw_string_literal_double_quotes, STATE 627),
     (sym__raw_string_literal_single_quotes, STATE 627),
     (sym__raw_string_literal_double_quotes_multiple, STATE 627),
     (sym__raw_string_literal_single_quotes_multiple, STATE 627), (sym_list_literal, STATE 989),
     (sym_set_or_map_literal, STATE 989), (sym_null_literal, STATE 989),
     (sym_record_literal, STATE 989), (sym__record_literal_no_const, STATE 924),
     (sym__expression, STATE 3466), (sym__real_expression, STATE 660),
     (sym_throw_expression, STATE 908), (sym_rethrow_expression, STATE 908),
     (sym_assignment_expression, STATE 908), (sym_assignable_expression, STATE 1940),
     (sym_function_expression, STATE 962), (sym_if_null_expression, STATE 1477),
     (sym_conditional_expression, STATE 1477), (sym_logical_or_expression, STATE 1477),
     (sym_logical_and_expression, STATE 1477), (sym_equality_expression, STATE 1477),
     (sym_type_cast_expression, STATE 1477), (sym_type_test_expression, STATE 1477),
     (sym_relational_expression, STATE 1477), (sym_bitwise_or_expression, STATE 1477),
     (sym_bitwise_xor_expression, STATE 1477), (sym_bitwise_and_expression, STATE 1477),
     (sym_shift_expression, STATE 1477), (sym_additive_expression, STATE 1477),
     (sym_multiplicative_expression, STATE 1477), (sym__unary_expression, STATE 1121),
     (sym_unary_expression, STATE 1303), (sym__postfix_expression, STATE 1303),
     (sym_postfix_expression, STATE 1301), (sym_prefix_operator, STATE 431),
     (sym_negation_operator, STATE 1450), (sym__exclamation_operator, STATE 1451),
     (sym_tilde_operator, STATE 1385), (sym_await_expression, STATE 1302),
     (sym_new_expression, STATE 962), (sym_const_object_expression, STATE 962),
     (sym__primary, STATE 668), (sym_parenthesized_expression, STATE 962),
     (sym_constructor_invocation, STATE 643), (sym_constructor_tearoff, STATE 962),
     (sym_type_arguments, STATE 3200), (sym_switch_expression, STATE 962),
     (sym__parenthesized_pattern, STATE 3182), (sym_list_pattern, STATE 3182),
     (sym_map_pattern, STATE 3182), (sym_record_pattern, STATE 3182),
     (sym_object_pattern, STATE 3182), (sym__outer_pattern, STATE 3410),
     (sym_pattern_assignment, STATE 908), (sym_type_parameters, STATE 2932),
     (sym__type_name, STATE 2661), (sym__formal_parameter_part, STATE 2339),
     (sym_formal_parameter_list, STATE 2020), (sym__strict_formal_parameter_list, STATE 2016),
     (sym__new_builtin, STATE 2079), (sym_this, STATE 962), (sym_super, STATE 1337),
     (sym_comment, STATE 244), (sym_documentation_comment, STATE 244),
     (aux_sym_string_literal_repeat1, STATE 474), (sym_identifier, ACTIONS 494),
     (anon_sym_POUND, ACTIONS 73), (sym_decimal_integer_literal, ACTIONS 75),
     (sym_hex_integer_literal, ACTIONS 77), (sym_decimal_floating_point_literal, ACTIONS 75),
     (anon_sym_true, ACTIONS 79), (anon_sym_false, ACTIONS 81), (anon_sym_DQUOTE, ACTIONS 83),
     (anon_sym_SQUOTE, ACTIONS 85), (anon_sym_DQUOTE_DQUOTE_DQUOTE, ACTIONS 87),
     (anon_sym_SQUOTE_SQUOTE_SQUOTE, ACTIONS 89), (anon_sym_r_DQUOTE, ACTIONS 91),
     (anon_sym_r_SQUOTE, ACTIONS 93), (anon_sym_r_DQUOTE_DQUOTE_DQUOTE, ACTIONS 95),
     (anon_sym_r_SQUOTE_SQUOTE_SQUOTE, ACTIONS 97), (anon_sym_LBRACE, ACTIONS 442),
     (anon_sym_LBRACK, ACTIONS 103), (anon_sym_null, ACTIONS 105),
     (anon_sym_LPAREN, ACTIONS 498), (anon_sym_throw, ACTIONS 109), (anon_sym_LT, ACTIONS 111),
     (sym_increment_operator, ACTIONS 113), (sym_minus_operator, ACTIONS 117),
     (anon_sym_BANG, ACTIONS 119), (anon_sym_TILDE, ACTIONS 121), (anon_sym_await, ACTIONS 432),
     (anon_sym_switch, ACTIONS 412), (sym_rethrow_builtin, ACTIONS 151),
     (anon_sym_new, ACTIONS 155), (sym_const_builtin, ACTIONS 478), (anon_sym_this, ACTIONS 159),
     (anon_sym_super, ACTIONS 161), (anon_sym_SLASH_SLASH, ACTIONS 3),
     (anon_sym_SLASH_STAR, ACTIONS 5), (anon_sym_SLASH_SLASH_SLASH, ACTIONS 7),
     (sym__block_comment, ACTIONS 9), (sym__documentation_block_comment, ACTIONS 11)]"

lemma row_ok_244: "table_row_ok 244 ts_parse_table_244"
  by (simp add: row_simps ts_parse_table_244_def)

definition ts_parse_table_245 :: table_row where
  "ts_parse_table_245 = [
     (sym__bool_literal, STATE 989), (sym__numeric_literal, STATE 989),
     (sym__literal, STATE 962), (sym_symbol_literal, STATE 989), (sym_true, STATE 900),
     (sym_false, STATE 900), (sym_string_literal, STATE 989),
     (sym__string_literal_double_quotes, STATE 627),
     (sym__string_literal_single_quotes, STATE 627),
     (sym__string_literal_double_quotes_multiple, STATE 627),
     (sym__string_literal_single_quotes_multiple, STATE 627),
     (sym__raw_string_literal_double_quotes, STATE 627),
     (sym__raw_string_literal_single_quotes, STATE 627),
     (sym__raw_string_literal_double_quotes_multiple, STATE 627),
     (sym__raw_string_literal_single_quotes_multiple, STATE 627), (sym_list_literal, STATE 989),
     (sym_set_or_map_literal, STATE 989), (sym_null_literal, STATE 989),
     (sym_record_literal, STATE 989), (sym__record_literal_no_const, STATE 924),
     (sym__expression, STATE 3038), (sym__real_expression, STATE 660),
     (sym_throw_expression, STATE 908), (sym_rethrow_expression, STATE 908),
     (sym_assignment_expression, STATE 908), (sym_assignable_expression, STATE 1940),
     (sym_function_expression, STATE 962), (sym_if_null_expression, STATE 1477),
     (sym_conditional_expression, STATE 1477), (sym_logical_or_expression, STATE 1477),
     (sym_logical_and_expression, STATE 1477), (sym_equality_expression, STATE 1477),
     (sym_type_cast_expression, STATE 1477), (sym_type_test_expression, STATE 1477),
     (sym_relational_expression, STATE 1477), (sym_bitwise_or_expression, STATE 1477),
     (sym_bitwise_xor_expression, STATE 1477), (sym_bitwise_and_expression, STATE 1477),
     (sym_shift_expression, STATE 1477), (sym_additive_expression, STATE 1477),
     (sym_multiplicative_expression, STATE 1477), (sym__unary_expression, STATE 1121),
     (sym_unary_expression, STATE 1303), (sym__postfix_expression, STATE 1303),
     (sym_postfix_expression, STATE 1301), (sym_prefix_operator, STATE 431),
     (sym_negation_operator, STATE 1450), (sym__exclamation_operator, STATE 1451),
     (sym_tilde_operator, STATE 1385), (sym_await_expression, STATE 1302),
     (sym_new_expression, STATE 962), (sym_const_object_expression, STATE 962),
     (sym__primary, STATE 668), (sym_parenthesized_expression, STATE 962),
     (sym_constructor_invocation, STATE 643), (sym_constructor_tearoff, STATE 962),
     (sym_type_arguments, STATE 3200), (sym_switch_expression, STATE 962),
     (sym__parenthesized_pattern, STATE 3182), (sym_list_pattern, STATE 3182),
     (sym_map_pattern, STATE 3182), (sym_record_pattern, STATE 3182),
     (sym_object_pattern, STATE 3182), (sym__outer_pattern, STATE 3410),
     (sym_pattern_assignment, STATE 908), (sym_type_parameters, STATE 2932),
     (sym__type_name, STATE 2661), (sym__formal_parameter_part, STATE 2339),
     (sym_formal_parameter_list, STATE 2020), (sym__strict_formal_parameter_list, STATE 2016),
     (sym__new_builtin, STATE 2079), (sym_this, STATE 962), (sym_super, STATE 1337),
     (sym_comment, STATE 245), (sym_documentation_comment, STATE 245),
     (aux_sym_string_literal_repeat1, STATE 474), (sym_identifier, ACTIONS 494),
     (anon_sym_POUND, ACTIONS 73), (sym_decimal_integer_literal, ACTIONS 75),
     (sym_hex_integer_literal, ACTIONS 77), (sym_decimal_floating_point_literal, ACTIONS 75),
     (anon_sym_true, ACTIONS 79), (anon_sym_false, ACTIONS 81), (anon_sym_DQUOTE, ACTIONS 83),
     (anon_sym_SQUOTE, ACTIONS 85), (anon_sym_DQUOTE_DQUOTE_DQUOTE, ACTIONS 87),
     (anon_sym_SQUOTE_SQUOTE_SQUOTE, ACTIONS 89), (anon_sym_r_DQUOTE, ACTIONS 91),
     (anon_sym_r_SQUOTE, ACTIONS 93), (anon_sym_r_DQUOTE_DQUOTE_DQUOTE, ACTIONS 95),
     (anon_sym_r_SQUOTE_SQUOTE_SQUOTE, ACTIONS 97), (anon_sym_LBRACE, ACTIONS 442),
     (anon_sym_LBRACK, ACTIONS 103), (anon_sym_null, ACTIONS 105),
     (anon_sym_LPAREN, ACTIONS 498), (anon_sym_throw, ACTIONS 109), (anon_sym_LT, ACTIONS 111),
     (sym_increment_operator, ACTIONS 113), (sym_minus_operator, ACTIONS 117),
     (anon_sym_BANG, ACTIONS 119), (anon_sym_TILDE, ACTIONS 121), (anon_sym_await, ACTIONS 432),
     (anon_sym_switch, ACTIONS 412), (sym_rethrow_builtin, ACTIONS 151),
     (anon_sym_new, ACTIONS 155), (sym_const_builtin, ACTIONS 478), (anon_sym_this, ACTIONS 159),
     (anon_sym_super, ACTIONS 161), (anon_sym_SLASH_SLASH, ACTIONS 3),
     (anon_sym_SLASH_STAR, ACTIONS 5), (anon_sym_SLASH_SLASH_SLASH, ACTIONS 7),
     (sym__block_comment, ACTIONS 9), (sym__documentation_block_comment, ACTIONS 11)]"

lemma row_ok_245: "table_row_ok 245 ts_parse_table_245"
  by (simp add: row_simps ts_parse_table_245_def)

definition ts_parse_table_246 :: table_row where
  "ts_parse_table_246 = [
     (sym__bool_literal, STATE 989), (sym__numeric_literal, STATE 989),
     (sym__literal, STATE 962), (sym_symbol_literal, STATE 989), (sym_true, STATE 900),
     (sym_false, STATE 900), (sym_string_literal, STATE 989),
     (sym__string_literal_double_quotes, STATE 627),
     (sym__string_literal_single_quotes, STATE 627),
     (sym__string_literal_double_quotes_multiple, STATE 627),
     (sym__string_literal_single_quotes_multiple, STATE 627),
     (sym__raw_string_literal_double_quotes, STATE 627),
     (sym__raw_string_literal_single_quotes, STATE 627),
     (sym__raw_string_literal_double_quotes_multiple, STATE 627),
     (sym__raw_string_literal_single_quotes_multiple, STATE 627), (sym_list_literal, STATE 989),
     (sym_set_or_map_literal, STATE 989), (sym_null_literal, STATE 989),
     (sym_record_literal, STATE 989), (sym__record_literal_no_const, STATE 924),
     (sym__expression, STATE 2760), (sym__real_expression, STATE 660),
     (sym_throw_expression, STATE 908), (sym_rethrow_expression, STATE 908),
     (sym_assignment_expression, STATE 908), (sym_assignable_expression, STATE 1940),
     (sym_function_expression, STATE 962), (sym_if_null_expression, STATE 1477),
     (sym_conditional_expression, STATE 1477), (sym_logical_or_expression, STATE 1477),
     (sym_logical_and_expression, STATE 1477), (sym_equality_expression, STATE 1477),
     (sym_type_cast_expression, STATE 1477), (sym_type_test_expression, STATE 1477),
     (sym_relational_expression, STATE 1477), (sym_bitwise_or_expression, STATE 1477),
     (sym_bitwise_xor_expression, STATE 1477), (sym_bitwise_and_expression, STATE 1477),
     (sym_shift_expression, STATE 1477), (sym_additive_expression, STATE 1477),
     (sym_multiplicative_expression, STATE 1477), (sym__unary_expression, STATE 1121),
     (sym_unary_expression, STATE 1303), (sym__postfix_expression, STATE 1303),
     (sym_postfix_expression, STATE 1301), (sym_prefix_operator, STATE 431),
     (sym_negation_operator, STATE 1450), (sym__exclamation_operator, STATE 1451),
     (sym_tilde_operator, STATE 1385), (sym_await_expression, STATE 1302),
     (sym_new_expression, STATE 962), (sym_const_object_expression, STATE 962),
     (sym__primary, STATE 668), (sym_parenthesized_expression, STATE 962),
     (sym_constructor_invocation, STATE 643), (sym_constructor_tearoff, STATE 962),
     (sym_type_arguments, STATE 3200), (sym_switch_expression, STATE 962),
     (sym__parenthesized_pattern, STATE 3182), (sym_list_pattern, STATE 3182),
     (sym_map_pattern, STATE 3182), (sym_record_pattern, STATE 3182),
     (sym_object_pattern, STATE 3182), (sym__outer_pattern, STATE 3410),
     (sym_pattern_assignment, STATE 908), (sym_type_parameters, STATE 2932),
     (sym__type_name, STATE 2661), (sym__formal_parameter_part, STATE 2339),
     (sym_formal_parameter_list, STATE 2020), (sym__strict_formal_parameter_list, STATE 2016),
     (sym__new_builtin, STATE 2079), (sym_this, STATE 962), (sym_super, STATE 1337),
     (sym_comment, STATE 246), (sym_documentation_comment, STATE 246),
     (aux_sym_string_literal_repeat1, STATE 474), (sym_identifier, ACTIONS 494),
     (anon_sym_POUND, ACTIONS 73), (sym_decimal_integer_literal, ACTIONS 75),
     (sym_hex_integer_literal, ACTIONS 77), (sym_decimal_floating_point_literal, ACTIONS 75),
     (anon_sym_true, ACTIONS 79), (anon_sym_false, ACTIONS 81), (anon_sym_DQUOTE, ACTIONS 83),
     (anon_sym_SQUOTE, ACTIONS 85), (anon_sym_DQUOTE_DQUOTE_DQUOTE, ACTIONS 87),
     (anon_sym_SQUOTE_SQUOTE_SQUOTE, ACTIONS 89), (anon_sym_r_DQUOTE, ACTIONS 91),
     (anon_sym_r_SQUOTE, ACTIONS 93), (anon_sym_r_DQUOTE_DQUOTE_DQUOTE, ACTIONS 95),
     (anon_sym_r_SQUOTE_SQUOTE_SQUOTE, ACTIONS 97), (anon_sym_LBRACE, ACTIONS 442),
     (anon_sym_LBRACK, ACTIONS 103), (anon_sym_null, ACTIONS 105),
     (anon_sym_LPAREN, ACTIONS 498), (anon_sym_throw, ACTIONS 109), (anon_sym_LT, ACTIONS 111),
     (sym_increment_operator, ACTIONS 113), (sym_minus_operator, ACTIONS 117),
     (anon_sym_BANG, ACTIONS 119), (anon_sym_TILDE, ACTIONS 121), (anon_sym_await, ACTIONS 432),
     (anon_sym_switch, ACTIONS 412), (sym_rethrow_builtin, ACTIONS 151),
     (anon_sym_new, ACTIONS 155), (sym_const_builtin, ACTIONS 478), (anon_sym_this, ACTIONS 159),
     (anon_sym_super, ACTIONS 161), (anon_sym_SLASH_SLASH, ACTIONS 3),
     (anon_sym_SLASH_STAR, ACTIONS 5), (anon_sym_SLASH_SLASH_SLASH, ACTIONS 7),
     (sym__block_comment, ACTIONS 9), (sym__documentation_block_comment, ACTIONS 11)]"

lemma row_ok_246: "table_row_ok 246 ts_parse_table_246"
  by (simp add: row_simps ts_parse_table_246_def)

definition ts_parse_table_247 :: table_row where
  "ts_parse_table_247 = [
     (sym__bool_literal, STATE 989), (sym__numeric_literal, STATE 989),
     (sym__literal, STATE 962), (sym_symbol_literal, STATE 989), (sym_true, STATE 900),
     (sym_false, STATE 900), (sym_string_literal, STATE 989),
     (sym__string_literal_double_quotes, STATE 627),
     (sym__string_literal_single_quotes, STATE 627),
     (sym__string_literal_double_quotes_multiple, STATE 627),
     (sym__string_literal_single_quotes_multiple, STATE 627),
     (sym__raw_string_literal_double_quotes, STATE 627),
     (sym__raw_string_literal_single_quotes, STATE 627),
     (sym__raw_string_literal_double_quotes_multiple, STATE 627),
     (sym__raw_string_literal_single_quotes_multiple, STATE 627), (sym_list_literal, STATE 989),
     (sym_set_or_map_literal, STATE 989), (sym_null_literal, STATE 989),
     (sym_record_literal, STATE 989), (sym__record_literal_no_const, STATE 924),
     (sym__expression, STATE 3046), (sym__real_expression, STATE 660),
     (sym_throw_expression, STATE 908), (sym_rethrow_expression, STATE 908),
     (sym_assignment_expression, STATE 908), (sym_assignable_expression, STATE 1940),
     (sym_function_expression, STATE 962), (sym_if_null_expression, STATE 1477),
     (sym_conditional_expression, STATE 1477), (sym_logical_or_expression, STATE 1477),
     (sym_logical_and_expression, STATE 1477), (sym_equality_expression, STATE 1477),
     (sym_type_cast_expression, STATE 1477), (sym_type_test_expression, STATE 1477),
     (sym_relational_expression, STATE 1477), (sym_bitwise_or_expression, STATE 1477),
     (sym_bitwise_xor_expression, STATE 1477), (sym_bitwise_and_expression, STATE 1477),
     (sym_shift_expression, STATE 1477), (sym_additive_expression, STATE 1477),
     (sym_multiplicative_expression, STATE 1477), (sym__unary_expression, STATE 1121),
     (sym_unary_expression, STATE 1303), (sym__postfix_expression, STATE 1303),
     (sym_postfix_expression, STATE 1301), (sym_prefix_operator, STATE 431),
     (sym_negation_operator, STATE 1450), (sym__exclamation_operator, STATE 1451),
     (sym_tilde_operator, STATE 1385), (sym_await_expression, STATE 1302),
     (sym_new_expression, STATE 962), (sym_const_object_expression, STATE 962),
     (sym__primary, STATE 668), (sym_parenthesized_expression, STATE 962),
     (sym_constructor_invocation, STATE 643), (sym_constructor_tearoff, STATE 962),
     (sym_type_arguments, STATE 3200), (sym_switch_expression, STATE 962),
     (sym__parenthesized_pattern, STATE 3182), (sym_list_pattern, STATE 3182),
     (sym_map_pattern, STATE 3182), (sym_record_pattern, STATE 3182),
     (sym_object_pattern, STATE 3182), (sym__outer_pattern, STATE 3410),
     (sym_pattern_assignment, STATE 908), (sym_type_parameters, STATE 2932),
     (sym__type_name, STATE 2661), (sym__formal_parameter_part, STATE 2339),
     (sym_formal_parameter_list, STATE 2020), (sym__strict_formal_parameter_list, STATE 2016),
     (sym__new_builtin, STATE 2079), (sym_this, STATE 962), (sym_super, STATE 1337),
     (sym_comment, STATE 247), (sym_documentation_comment, STATE 247),
     (aux_sym_string_literal_repeat1, STATE 474), (sym_identifier, ACTIONS 494),
     (anon_sym_POUND, ACTIONS 73), (sym_decimal_integer_literal, ACTIONS 75),
     (sym_hex_integer_literal, ACTIONS 77), (sym_decimal_floating_point_literal, ACTIONS 75),
     (anon_sym_true, ACTIONS 79), (anon_sym_false, ACTIONS 81), (anon_sym_DQUOTE, ACTIONS 83),
     (anon_sym_SQUOTE, ACTIONS 85), (anon_sym_DQUOTE_DQUOTE_DQUOTE, ACTIONS 87),
     (anon_sym_SQUOTE_SQUOTE_SQUOTE, ACTIONS 89), (anon_sym_r_DQUOTE, ACTIONS 91),
     (anon_sym_r_SQUOTE, ACTIONS 93), (anon_sym_r_DQUOTE_DQUOTE_DQUOTE, ACTIONS 95),
     (anon_sym_r_SQUOTE_SQUOTE_SQUOTE, ACTIONS 97), (anon_sym_LBRACE, ACTIONS 442),
     (anon_sym_LBRACK, ACTIONS 103), (anon_sym_null, ACTIONS 105),
     (anon_sym_LPAREN, ACTIONS 498), (anon_sym_throw, ACTIONS 109), (anon_sym_LT, ACTIONS 111),
     (sym_increment_operator, ACTIONS 113), (sym_minus_operator, ACTIONS 117),
     (anon_sym_BANG, ACTIONS 119), (anon_sym_TILDE, ACTIONS 121), (anon_sym_await, ACTIONS 432),
     (anon_sym_switch, ACTIONS 412), (sym_rethrow_builtin, ACTIONS 151),
     (anon_sym_new, ACTIONS 155), (sym_const_builtin, ACTIONS 478), (anon_sym_this, ACTIONS 159),
     (anon_sym_super, ACTIONS 161), (anon_sym_SLASH_SLASH, ACTIONS 3),
     (anon_sym_SLASH_STAR, ACTIONS 5), (anon_sym_SLASH_SLASH_SLASH, ACTIONS 7),
     (sym__block_comment, ACTIONS 9), (sym__documentation_block_comment, ACTIONS 11)]"

lemma row_ok_247: "table_row_ok 247 ts_parse_table_247"
  by (simp add: row_simps ts_parse_table_247_def)

definition ts_parse_table_248 :: table_row where
  "ts_parse_table_248 = [
     (sym__bool_literal, STATE 989), (sym__numeric_literal, STATE 989),
     (sym__literal, STATE 962), (sym_symbol_literal, STATE 989), (sym_true, STATE 900),
     (sym_false, STATE 900), (sym_string_literal, STATE 989),
     (sym__string_literal_double_quotes, STATE 627),
     (sym__string_literal_single_quotes, STATE 627),
     (sym__string_literal_double_quotes_multiple, STATE 627),
     (sym__string_literal_single_quotes_multiple, STATE 627),
     (sym__raw_string_literal_double_quotes, STATE 627),
     (sym__raw_string_literal_single_quotes, STATE 627),
     (sym__raw_string_literal_double_quotes_multiple, STATE 627),
     (sym__raw_string_literal_single_quotes_multiple, STATE 627), (sym_list_literal, STATE 989),
     (sym_set_or_map_literal, STATE 989), (sym_null_literal, STATE 989),
     (sym_record_literal, STATE 989), (sym__record_literal_no_const, STATE 924),
     (sym__expression, STATE 3041), (sym__real_expression, STATE 660),
     (sym_throw_expression, STATE 908), (sym_rethrow_expression, STATE 908),
     (sym_assignment_expression, STATE 908), (sym_assignable_expression, STATE 1940),
     (sym_function_expression, STATE 962), (sym_if_null_expression, STATE 1477),
     (sym_conditional_expression, STATE 1477), (sym_logical_or_expression, STATE 1477),
     (sym_logical_and_expression, STATE 1477), (sym_equality_expression, STATE 1477),
     (sym_type_cast_expression, STATE 1477), (sym_type_test_expression, STATE 1477),
     (sym_relational_expression, STATE 1477), (sym_bitwise_or_expression, STATE 1477),
     (sym_bitwise_xor_expression, STATE 1477), (sym_bitwise_and_expression, STATE 1477),
     (sym_shift_expression, STATE 1477), (sym_additive_expression, STATE 1477),
     (sym_multiplicative_expression, STATE 1477), (sym__unary_expression, STATE 1121),
     (sym_unary_expression, STATE 1303), (sym__postfix_expression, STATE 1303),
     (sym_postfix_expression, STATE 1301), (sym_prefix_operator, STATE 431),
     (sym_negation_operator, STATE 1450), (sym__exclamation_operator, STATE 1451),
     (sym_tilde_operator, STATE 1385), (sym_await_expression, STATE 1302),
     (sym_new_expression, STATE 962), (sym_const_object_expression, STATE 962),
     (sym__primary, STATE 668), (sym_parenthesized_expression, STATE 962),
     (sym_constructor_invocation, STATE 643), (sym_constructor_tearoff, STATE 962),
     (sym_type_arguments, STATE 3200), (sym_switch_expression, STATE 962),
     (sym__parenthesized_pattern, STATE 3182), (sym_list_pattern, STATE 3182),
     (sym_map_pattern, STATE 3182), (sym_record_pattern, STATE 3182),
     (sym_object_pattern, STATE 3182), (sym__outer_pattern, STATE 3410),
     (sym_pattern_assignment, STATE 908), (sym_type_parameters, STATE 2932),
     (sym__type_name, STATE 2661), (sym__formal_parameter_part, STATE 2339),
     (sym_formal_parameter_list, STATE 2020), (sym__strict_formal_parameter_list, STATE 2016),
     (sym__new_builtin, STATE 2079), (sym_this, STATE 962), (sym_super, STATE 1337),
     (sym_comment, STATE 248), (sym_documentation_comment, STATE 248),
     (aux_sym_string_literal_repeat1, STATE 474), (sym_identifier, ACTIONS 494),
     (anon_sym_POUND, ACTIONS 73), (sym_decimal_integer_literal, ACTIONS 75),
     (sym_hex_integer_literal, ACTIONS 77), (sym_decimal_floating_point_literal, ACTIONS 75),
     (anon_sym_true, ACTIONS 79), (anon_sym_false, ACTIONS 81), (anon_sym_DQUOTE, ACTIONS 83),
     (anon_sym_SQUOTE, ACTIONS 85), (anon_sym_DQUOTE_DQUOTE_DQUOTE, ACTIONS 87),
     (anon_sym_SQUOTE_SQUOTE_SQUOTE, ACTIONS 89), (anon_sym_r_DQUOTE, ACTIONS 91),
     (anon_sym_r_SQUOTE, ACTIONS 93), (anon_sym_r_DQUOTE_DQUOTE_DQUOTE, ACTIONS 95),
     (anon_sym_r_SQUOTE_SQUOTE_SQUOTE, ACTIONS 97), (anon_sym_LBRACE, ACTIONS 442),
     (anon_sym_LBRACK, ACTIONS 103), (anon_sym_null, ACTIONS 105),
     (anon_sym_LPAREN, ACTIONS 498), (anon_sym_throw, ACTIONS 109), (anon_sym_LT, ACTIONS 111),
     (sym_increment_operator, ACTIONS 113), (sym_minus_operator, ACTIONS 117),
     (anon_sym_BANG, ACTIONS 119), (anon_sym_TILDE, ACTIONS 121), (anon_sym_await, ACTIONS 432),
     (anon_sym_switch, ACTIONS 412), (sym_rethrow_builtin, ACTIONS 151),
     (anon_sym_new, ACTIONS 155), (sym_const_builtin, ACTIONS 478), (anon_sym_this, ACTIONS 159),
     (anon_sym_super, ACTIONS 161), (anon_sym_SLASH_SLASH, ACTIONS 3),
     (anon_sym_SLASH_STAR, ACTIONS 5), (anon_sym_SLASH_SLASH_SLASH, ACTIONS 7),
     (sym__block_comment, ACTIONS 9), (sym__documentation_block_comment, ACTIONS 11)]"

lemma row_ok_248: "table_row_ok 248 ts_parse_table_248"
  by (simp add: row_simps ts_parse_table_248_def)

definition ts_parse_table_249 :: table_row where
  "ts_parse_table_249 = [
     (sym__bool_literal, STATE 989), (sym__numeric_literal, STATE 989),
     (sym__literal, STATE 962), (sym_symbol_literal, STATE 989), (sym_true, STATE 900),
     (sym_false, STATE 900), (sym_string_literal, STATE 989),
     (sym__string_literal_double_quotes, STATE 627),
     (sym__string_literal_single_quotes, STATE 627),
     (sym__string_literal_double_quotes_multiple, STATE 627),
     (sym__string_literal_single_quotes_multiple, STATE 627),
     (sym__raw_string_literal_double_quotes, STATE 627),
     (sym__raw_string_literal_single_quotes, STATE 627),
     (sym__raw_string_literal_double_quotes_multiple, STATE 627),
     (sym__raw_string_literal_single_quotes_multiple, STATE 627), (sym_list_literal, STATE 989),
     (sym_set_or_map_literal, STATE 989), (sym_null_literal, STATE 989),
     (sym_record_literal, STATE 989), (sym__record_literal_no_const, STATE 924),
     (sym__expression, STATE 3266), (sym__real_expression, STATE 660),
     (sym_throw_expression, STATE 908), (sym_rethrow_expression, STATE 908),
     (sym_assignment_expression, STATE 908), (sym_assignable_expression, STATE 1940),
     (sym_function_expression, STATE 962), (sym_if_null_expression, STATE 1477),
     (sym_conditional_expression, STATE 1477), (sym_logical_or_expression, STATE 1477),
     (sym_logical_and_expression, STATE 1477), (sym_equality_expression, STATE 1477),
     (sym_type_cast_expression, STATE 1477), (sym_type_test_expression, STATE 1477),
     (sym_relational_expression, STATE 1477), (sym_bitwise_or_expression, STATE 1477),
     (sym_bitwise_xor_expression, STATE 1477), (sym_bitwise_and_expression, STATE 1477),
     (sym_shift_expression, STATE 1477), (sym_additive_expression, STATE 1477),
     (sym_multiplicative_expression, STATE 1477), (sym__unary_expression, STATE 1121),
     (sym_unary_expression, STATE 1303), (sym__postfix_expression, STATE 1303),
     (sym_postfix_expression, STATE 1301), (sym_prefix_operator, STATE 431),
     (sym_negation_operator, STATE 1450), (sym__exclamation_operator, STATE 1451),
     (sym_tilde_operator, STATE 1385), (sym_await_expression, STATE 1302),
     (sym_new_expression, STATE 962), (sym_const_object_expression, STATE 962),
     (sym__primary, STATE 668), (sym_parenthesized_expression, STATE 962),
     (sym_constructor_invocation, STATE 643), (sym_constructor_tearoff, STATE 962),
     (sym_type_arguments, STATE 3200), (sym_switch_expression, STATE 962),
     (sym__parenthesized_pattern, STATE 3182), (sym_list_pattern, STATE 3182),
     (sym_map_pattern, STATE 3182), (sym_record_pattern, STATE 3182),
     (sym_object_pattern, STATE 3182), (sym__outer_pattern, STATE 3410),
     (sym_pattern_assignment, STATE 908), (sym_type_parameters, STATE 2932),
     (sym__type_name, STATE 2661), (sym__formal_parameter_part, STATE 2339),
     (sym_formal_parameter_list, STATE 2020), (sym__strict_formal_parameter_list, STATE 2016),
     (sym__new_builtin, STATE 2079), (sym_this, STATE 962), (sym_super, STATE 1337),
     (sym_comment, STATE 249), (sym_documentation_comment, STATE 249),
     (aux_sym_string_literal_repeat1, STATE 474), (sym_identifier, ACTIONS 494),
     (anon_sym_POUND, ACTIONS 73), (sym_decimal_integer_literal, ACTIONS 75),
     (sym_hex_integer_literal, ACTIONS 77), (sym_decimal_floating_point_literal, ACTIONS 75),
     (anon_sym_true, ACTIONS 79), (anon_sym_false, ACTIONS 81), (anon_sym_DQUOTE, ACTIONS 83),
     (anon_sym_SQUOTE, ACTIONS 85), (anon_sym_DQUOTE_DQUOTE_DQUOTE, ACTIONS 87),
     (anon_sym_SQUOTE_SQUOTE_SQUOTE, ACTIONS 89), (anon_sym_r_DQUOTE, ACTIONS 91),
     (anon_sym_r_SQUOTE, ACTIONS 93), (anon_sym_r_DQUOTE_DQUOTE_DQUOTE, ACTIONS 95),
     (anon_sym_r_SQUOTE_SQUOTE_SQUOTE, ACTIONS 97), (anon_sym_LBRACE, ACTIONS 442),
     (anon_sym_LBRACK, ACTIONS 103), (anon_sym_null, ACTIONS 105),
     (anon_sym_LPAREN, ACTIONS 498), (anon_sym_throw, ACTIONS 109), (anon_sym_LT, ACTIONS 111),
     (sym_increment_operator, ACTIONS 113), (sym_minus_operator, ACTIONS 117),
     (anon_sym_BANG, ACTIONS 119), (anon_sym_TILDE, ACTIONS 121), (anon_sym_await, ACTIONS 432),
     (anon_sym_switch, ACTIONS 412), (sym_rethrow_builtin, ACTIONS 151),
     (anon_sym_new, ACTIONS 155), (sym_const_builtin, ACTIONS 478), (anon_sym_this, ACTIONS 159),
     (anon_sym_super, ACTIONS 161), (anon_sym_SLASH_SLASH, ACTIONS 3),
     (anon_sym_SLASH_STAR, ACTIONS 5), (anon_sym_SLASH_SLASH_SLASH, ACTIONS 7),
     (sym__block_comment, ACTIONS 9), (sym__documentation_block_comment, ACTIONS 11)]"

lemma row_ok_249: "table_row_ok 249 ts_parse_table_249"
  by (simp add: row_simps ts_parse_table_249_def)

definition ts_parse_table_250 :: table_row where
  "ts_parse_table_250 = [
     (sym__bool_literal, STATE 989), (sym__numeric_literal, STATE 989),
     (sym__literal, STATE 962), (sym_symbol_literal, STATE 989), (sym_true, STATE 900),
     (sym_false, STATE 900), (sym_string_literal, STATE 989),
     (sym__string_literal_double_quotes, STATE 627),
     (sym__string_literal_single_quotes, STATE 627),
     (sym__string_literal_double_quotes_multiple, STATE 627),
     (sym__string_literal_single_quotes_multiple, STATE 627),
     (sym__raw_string_literal_double_quotes, STATE 627),
     (sym__raw_string_literal_single_quotes, STATE 627),
     (sym__raw_string_literal_double_quotes_multiple, STATE 627),
     (sym__raw_string_literal_single_quotes_multiple, STATE 627), (sym_list_literal, STATE 989),
     (sym_set_or_map_literal, STATE 989), (sym_null_literal, STATE 989),
     (sym_record_literal, STATE 989), (sym__record_literal_no_const, STATE 924),
     (sym__expression, STATE 2382), (sym__real_expression, STATE 722),
     (sym_throw_expression, STATE 2393), (sym_rethrow_expression, STATE 2393),
     (sym_assignment_expression, STATE 2393), (sym_assignable_expression, STATE 1952),
     (sym_function_expression, STATE 962), (sym_if_null_expression, STATE 996),
     (sym_conditional_expression, STATE 996), (sym_logical_or_expression, STATE 996),
     (sym_logical_and_expression, STATE 996), (sym_equality_expression, STATE 996),
     (sym_type_cast_expression, STATE 996), (sym_type_test_expression, STATE 996),
     (sym_relational_expression, STATE 996), (sym_bitwise_or_expression, STATE 996),
     (sym_bitwise_xor_expression, STATE 996), (sym_bitwise_and_expression, STATE 996),
     (sym_shift_expression, STATE 996), (sym_additive_expression, STATE 996),
     (sym_multiplicative_expression, STATE 996), (sym__unary_expression, STATE 1323),
     (sym_unary_expression, STATE 994), (sym__postfix_expression, STATE 994),
     (sym_postfix_expression, STATE 993), (sym_prefix_operator, STATE 421),
     (sym_negation_operator, STATE 1450), (sym__exclamation_operator, STATE 1451),
     (sym_tilde_operator, STATE 1357), (sym_await_expression, STATE 991),
     (sym_new_expression, STATE 962), (sym_const_object_expression, STATE 962),
     (sym__primary, STATE 648), (sym_parenthesized_expression, STATE 962),
     (sym_constructor_invocation, STATE 643), (sym_constructor_tearoff, STATE 962),
     (sym_type_arguments, STATE 3200), (sym_switch_expression, STATE 962),
     (sym__parenthesized_pattern, STATE 3182), (sym_list_pattern, STATE 3182),
     (sym_map_pattern, STATE 3182), (sym_record_pattern, STATE 3182),
     (sym_object_pattern, STATE 3182), (sym__outer_pattern, STATE 3533),
     (sym_pattern_assignment, STATE 2393), (sym_type_parameters, STATE 2932),
     (sym__type_name, STATE 2661), (sym__formal_parameter_part, STATE 2339),
     (sym_formal_parameter_list, STATE 2020), (sym__strict_formal_parameter_list, STATE 2016),
     (sym__new_builtin, STATE 2079), (sym_this, STATE 962), (sym_super, STATE 1339),
     (sym_comment, STATE 250), (sym_documentation_comment, STATE 250),
     (aux_sym_string_literal_repeat1, STATE 474), (sym_identifier, ACTIONS 494),
     (anon_sym_POUND, ACTIONS 73), (sym_decimal_integer_literal, ACTIONS 75),
     (sym_hex_integer_literal, ACTIONS 77), (sym_decimal_floating_point_literal, ACTIONS 75),
     (anon_sym_true, ACTIONS 79), (anon_sym_false, ACTIONS 81), (anon_sym_DQUOTE, ACTIONS 83),
     (anon_sym_SQUOTE, ACTIONS 85), (anon_sym_DQUOTE_DQUOTE_DQUOTE, ACTIONS 87),
     (anon_sym_SQUOTE_SQUOTE_SQUOTE, ACTIONS 89), (anon_sym_r_DQUOTE, ACTIONS 91),
     (anon_sym_r_SQUOTE, ACTIONS 93), (anon_sym_r_DQUOTE_DQUOTE_DQUOTE, ACTIONS 95),
     (anon_sym_r_SQUOTE_SQUOTE_SQUOTE, ACTIONS 97), (anon_sym_LBRACE, ACTIONS 442),
     (anon_sym_LBRACK, ACTIONS 103), (anon_sym_null, ACTIONS 105),
     (anon_sym_LPAREN, ACTIONS 498), (anon_sym_throw, ACTIONS 750), (anon_sym_LT, ACTIONS 111),
     (sym_increment_operator, ACTIONS 688), (sym_minus_operator, ACTIONS 690),
     (anon_sym_BANG, ACTIONS 119), (anon_sym_TILDE, ACTIONS 121), (anon_sym_await, ACTIONS 692),
     (anon_sym_switch, ACTIONS 412), (sym_rethrow_builtin, ACTIONS 752),
     (anon_sym_new, ACTIONS 155), (sym_const_builtin, ACTIONS 478), (anon_sym_this, ACTIONS 159),
     (anon_sym_super, ACTIONS 161), (anon_sym_SLASH_SLASH, ACTIONS 3),
     (anon_sym_SLASH_STAR, ACTIONS 5), (anon_sym_SLASH_SLASH_SLASH, ACTIONS 7),
     (sym__block_comment, ACTIONS 9), (sym__documentation_block_comment, ACTIONS 11)]"

lemma row_ok_250: "table_row_ok 250 ts_parse_table_250"
  by (simp add: row_simps ts_parse_table_250_def)

definition ts_parse_table_251 :: table_row where
  "ts_parse_table_251 = [
     (sym__bool_literal, STATE 989), (sym__numeric_literal, STATE 989),
     (sym__literal, STATE 962), (sym_symbol_literal, STATE 989), (sym_true, STATE 900),
     (sym_false, STATE 900), (sym_string_literal, STATE 989),
     (sym__string_literal_double_quotes, STATE 627),
     (sym__string_literal_single_quotes, STATE 627),
     (sym__string_literal_double_quotes_multiple, STATE 627),
     (sym__string_literal_single_quotes_multiple, STATE 627),
     (sym__raw_string_literal_double_quotes, STATE 627),
     (sym__raw_string_literal_single_quotes, STATE 627),
     (sym__raw_string_literal_double_quotes_multiple, STATE 627),
     (sym__raw_string_literal_single_quotes_multiple, STATE 627), (sym_list_literal, STATE 989),
     (sym_set_or_map_literal, STATE 989), (sym_null_literal, STATE 989),
     (sym_record_literal, STATE 989), (sym__record_literal_no_const, STATE 924),
     (sym__expression, STATE 2365), (sym__real_expression, STATE 722),
     (sym_throw_expression, STATE 2393), (sym_rethrow_expression, STATE 2393),
     (sym_assignment_expression, STATE 2393), (sym_assignable_expression, STATE 1952),
     (sym_function_expression, STATE 962), (sym_if_null_expression, STATE 996),
     (sym_conditional_expression, STATE 996), (sym_logical_or_expression, STATE 996),
     (sym_logical_and_expression, STATE 996), (sym_equality_expression, STATE 996),
     (sym_type_cast_expression, STATE 996), (sym_type_test_expression, STATE 996),
     (sym_relational_expression, STATE 996), (sym_bitwise_or_expression, STATE 996),
     (sym_bitwise_xor_expression, STATE 996), (sym_bitwise_and_expression, STATE 996),
     (sym_shift_expression, STATE 996), (sym_additive_expression, STATE 996),
     (sym_multiplicative_expression, STATE 996), (sym__unary_expression, STATE 1323),
     (sym_unary_expression, STATE 994), (sym__postfix_expression, STATE 994),
     (sym_postfix_expression, STATE 993), (sym_prefix_operator, STATE 421),
     (sym_negation_operator, STATE 1450), (sym__exclamation_operator, STATE 1451),
     (sym_tilde_operator, STATE 1357), (sym_await_expression, STATE 991),
     (sym_new_expression, STATE 962), (sym_const_object_expression, STATE 962),
     (sym__primary, STATE 648), (sym_parenthesized_expression, STATE 962),
     (sym_constructor_invocation, STATE 643), (sym_constructor_tearoff, STATE 962),
     (sym_type_arguments, STATE 3200), (sym_switch_expression, STATE 962),
     (sym__parenthesized_pattern, STATE 3182), (sym_list_pattern, STATE 3182),
     (sym_map_pattern, STATE 3182), (sym_record_pattern, STATE 3182),
     (sym_object_pattern, STATE 3182), (sym__outer_pattern, STATE 3533),
     (sym_pattern_assignment, STATE 2393), (sym_type_parameters, STATE 2932),
     (sym__type_name, STATE 2661), (sym__formal_parameter_part, STATE 2339),
     (sym_formal_parameter_list, STATE 2020), (sym__strict_formal_parameter_list, STATE 2016),
     (sym__new_builtin, STATE 2079), (sym_this, STATE 962), (sym_super, STATE 1339),
     (sym_comment, STATE 251), (sym_documentation_comment, STATE 251),
     (aux_sym_string_literal_repeat1, STATE 474), (sym_identifier, ACTIONS 494),
     (anon_sym_POUND, ACTIONS 73), (sym_decimal_integer_literal, ACTIONS 75),
     (sym_hex_integer_literal, ACTIONS 77), (sym_decimal_floating_point_literal, ACTIONS 75),
     (anon_sym_true, ACTIONS 79), (anon_sym_false, ACTIONS 81), (anon_sym_DQUOTE, ACTIONS 83),
     (anon_sym_SQUOTE, ACTIONS 85), (anon_sym_DQUOTE_DQUOTE_DQUOTE, ACTIONS 87),
     (anon_sym_SQUOTE_SQUOTE_SQUOTE, ACTIONS 89), (anon_sym_r_DQUOTE, ACTIONS 91),
     (anon_sym_r_SQUOTE, ACTIONS 93), (anon_sym_r_DQUOTE_DQUOTE_DQUOTE, ACTIONS 95),
     (anon_sym_r_SQUOTE_SQUOTE_SQUOTE, ACTIONS 97), (anon_sym_LBRACE, ACTIONS 442),
     (anon_sym_LBRACK, ACTIONS 103), (anon_sym_null, ACTIONS 105),
     (anon_sym_LPAREN, ACTIONS 498), (anon_sym_throw, ACTIONS 750), (anon_sym_LT, ACTIONS 111),
     (sym_increment_operator, ACTIONS 688), (sym_minus_operator, ACTIONS 690),
     (anon_sym_BANG, ACTIONS 119), (anon_sym_TILDE, ACTIONS 121), (anon_sym_await, ACTIONS 692),
     (anon_sym_switch, ACTIONS 412), (sym_rethrow_builtin, ACTIONS 752),
     (anon_sym_new, ACTIONS 155), (sym_const_builtin, ACTIONS 478), (anon_sym_this, ACTIONS 159),
     (anon_sym_super, ACTIONS 161), (anon_sym_SLASH_SLASH, ACTIONS 3),
     (anon_sym_SLASH_STAR, ACTIONS 5), (anon_sym_SLASH_SLASH_SLASH, ACTIONS 7),
     (sym__block_comment, ACTIONS 9), (sym__documentation_block_comment, ACTIONS 11)]"

lemma row_ok_251: "table_row_ok 251 ts_parse_table_251"
  by (simp add: row_simps ts_parse_table_251_def)

definition ts_parse_table_252 :: table_row where
  "ts_parse_table_252 = [
     (sym__bool_literal, STATE 989), (sym__numeric_literal, STATE 989),
     (sym__literal, STATE 962), (sym_symbol_literal, STATE 989), (sym_true, STATE 900),
     (sym_false, STATE 900), (sym_string_literal, STATE 989),
     (sym__string_literal_double_quotes, STATE 627),
     (sym__string_literal_single_quotes, STATE 627),
     (sym__string_literal_double_quotes_multiple, STATE 627),
     (sym__string_literal_single_quotes_multiple, STATE 627),
     (sym__raw_string_literal_double_quotes, STATE 627),
     (sym__raw_string_literal_single_quotes, STATE 627),
     (sym__raw_string_literal_double_quotes_multiple, STATE 627),
     (sym__raw_string_literal_single_quotes_multiple, STATE 627), (sym_list_literal, STATE 989),
     (sym_set_or_map_literal, STATE 989), (sym_null_literal, STATE 989),
     (sym_record_literal, STATE 989), (sym__record_literal_no_const, STATE 924),
     (sym__expression, STATE 2597), (sym__real_expression, STATE 660),
     (sym_throw_expression, STATE 908), (sym_rethrow_expression, STATE 908),
     (sym_assignment_expression, STATE 908), (sym_assignable_expression, STATE 1940),
     (sym_function_expression, STATE 962), (sym_if_null_expression, STATE 1477),
     (sym_conditional_expression, STATE 1477), (sym_logical_or_expression, STATE 1477),
     (sym_logical_and_expression, STATE 1477), (sym_equality_expression, STATE 1477),
     (sym_type_cast_expression, STATE 1477), (sym_type_test_expression, STATE 1477),
     (sym_relational_expression, STATE 1477), (sym_bitwise_or_expression, STATE 1477),
     (sym_bitwise_xor_expression, STATE 1477), (sym_bitwise_and_expression, STATE 1477),
     (sym_shift_expression, STATE 1477), (sym_additive_expression, STATE 1477),
     (sym_multiplicative_expression, STATE 1477), (sym__unary_expression, STATE 1121),
     (sym_unary_expression, STATE 1303), (sym__postfix_expression, STATE 1303),
     (sym_postfix_expression, STATE 1301), (sym_prefix_operator, STATE 431),
     (sym_negation_operator, STATE 1450), (sym__exclamation_operator, STATE 1451),
     (sym_tilde_operator, STATE 1385), (sym_await_expression, STATE 1302),
     (sym_new_expression, STATE 962), (sym_const_object_expression, STATE 962),
     (sym__primary, STATE 668), (sym_parenthesized_expression, STATE 962),
     (sym_constructor_invocation, STATE 643), (sym_constructor_tearoff, STATE 962),
     (sym_type_arguments, STATE 3200), (sym_switch_expression, STATE 962),
     (sym__parenthesized_pattern, STATE 3182), (sym_list_pattern, STATE 3182),
     (sym_map_pattern, STATE 3182), (sym_record_pattern, STATE 3182),
     (sym_object_pattern, STATE 3182), (sym__outer_pattern, STATE 3410),
     (sym_pattern_assignment, STATE 908), (sym_type_parameters, STATE 2932),
     (sym__type_name, STATE 2661), (sym__formal_parameter_part, STATE 2339),
     (sym_formal_parameter_list, STATE 2020), (sym__strict_formal_parameter_list, STATE 2016),
     (sym__new_builtin, STATE 2079), (sym_this, STATE 962), (sym_super, STATE 1337),
     (sym_comment, STATE 252), (sym_documentation_comment, STATE 252),
     (aux_sym_string_literal_repeat1, STATE 474), (sym_identifier, ACTIONS 494),
     (anon_sym_POUND, ACTIONS 73), (sym_decimal_integer_literal, ACTIONS 75),
     (sym_hex_integer_literal, ACTIONS 77), (sym_decimal_floating_point_literal, ACTIONS 75),
     (anon_sym_true, ACTIONS 79), (anon_sym_false, ACTIONS 81), (anon_sym_DQUOTE, ACTIONS 83),
     (anon_sym_SQUOTE, ACTIONS 85), (anon_sym_DQUOTE_DQUOTE_DQUOTE, ACTIONS 87),
     (anon_sym_SQUOTE_SQUOTE_SQUOTE, ACTIONS 89), (anon_sym_r_DQUOTE, ACTIONS 91),
     (anon_sym_r_SQUOTE, ACTIONS 93), (anon_sym_r_DQUOTE_DQUOTE_DQUOTE, ACTIONS 95),
     (anon_sym_r_SQUOTE_SQUOTE_SQUOTE, ACTIONS 97), (anon_sym_LBRACE, ACTIONS 442),
     (anon_sym_LBRACK, ACTIONS 103), (anon_sym_null, ACTIONS 105),
     (anon_sym_LPAREN, ACTIONS 498), (anon_sym_throw, ACTIONS 109), (anon_sym_LT, ACTIONS 111),
     (sym_increment_operator, ACTIONS 113), (sym_minus_operator, ACTIONS 117),
     (anon_sym_BANG, ACTIONS 119), (anon_sym_TILDE, ACTIONS 121), (anon_sym_await, ACTIONS 432),
     (anon_sym_switch, ACTIONS 412), (sym_rethrow_builtin, ACTIONS 151),
     (anon_sym_new, ACTIONS 155), (sym_const_builtin, ACTIONS 478), (anon_sym_this, ACTIONS 159),
     (anon_sym_super, ACTIONS 161), (anon_sym_SLASH_SLASH, ACTIONS 3),
     (anon_sym_SLASH_STAR, ACTIONS 5), (anon_sym_SLASH_SLASH_SLASH, ACTIONS 7),
     (sym__block_comment, ACTIONS 9), (sym__documentation_block_comment, ACTIONS 11)]"

lemma row_ok_252: "table_row_ok 252 ts_parse_table_252"
  by (simp add: row_simps ts_parse_table_252_def)

definition ts_parse_table_253 :: table_row where
  "ts_parse_table_253 = [
     (sym__bool_literal, STATE 989), (sym__numeric_literal, STATE 989),
     (sym__literal, STATE 962), (sym_symbol_literal, STATE 989), (sym_true, STATE 900),
     (sym_false, STATE 900), (sym_string_literal, STATE 989),
     (sym__string_literal_double_quotes, STATE 627),
     (sym__string_literal_single_quotes, STATE 627),
     (sym__string_literal_double_quotes_multiple, STATE 627),
     (sym__string_literal_single_quotes_multiple, STATE 627),
     (sym__raw_string_literal_double_quotes, STATE 627),
     (sym__raw_string_literal_single_quotes, STATE 627),
     (sym__raw_string_literal_double_quotes_multiple, STATE 627),
     (sym__raw_string_literal_single_quotes_multiple, STATE 627), (sym_list_literal, STATE 989),
     (sym_set_or_map_literal, STATE 989), (sym_null_literal, STATE 989),
     (sym_record_literal, STATE 989), (sym__record_literal_no_const, STATE 924),
     (sym__expression, STATE 3173), (sym__real_expression, STATE 660),
     (sym_throw_expression, STATE 908), (sym_rethrow_expression, STATE 908),
     (sym_assignment_expression, STATE 908), (sym_assignable_expression, STATE 1940),
     (sym_function_expression, STATE 962), (sym_if_null_expression, STATE 1477),
     (sym_conditional_expression, STATE 1477), (sym_logical_or_expression, STATE 1477),
     (sym_logical_and_expression, STATE 1477), (sym_equality_expression, STATE 1477),
     (sym_type_cast_expression, STATE 1477), (sym_type_test_expression, STATE 1477),
     (sym_relational_expression, STATE 1477), (sym_bitwise_or_expression, STATE 1477),
     (sym_bitwise_xor_expression, STATE 1477), (sym_bitwise_and_expression, STATE 1477),
     (sym_shift_expression, STATE 1477), (sym_additive_expression, STATE 1477),
     (sym_multiplicative_expression, STATE 1477), (sym__unary_expression, STATE 1121),
     (sym_unary_expression, STATE 1303), (sym__postfix_expression, STATE 1303),
     (sym_postfix_expression, STATE 1301), (sym_prefix_operator, STATE 431),
     (sym_negation_operator, STATE 1450), (sym__exclamation_operator, STATE 1451),
     (sym_tilde_operator, STATE 1385), (sym_await_expression, STATE 1302),
     (sym_new_expression, STATE 962), (sym_const_object_expression, STATE 962),
     (sym__primary, STATE 668), (sym_parenthesized_expression, STATE 962),
     (sym_constructor_invocation, STATE 643), (sym_constructor_tearoff, STATE 962),
     (sym_type_arguments, STATE 3200), (sym_switch_expression, STATE 962),
     (sym__parenthesized_pattern, STATE 3182), (sym_list_pattern, STATE 3182),
     (sym_map_pattern, STATE 3182), (sym_record_pattern, STATE 3182),
     (sym_object_pattern, STATE 3182), (sym__outer_pattern, STATE 3410),
     (sym_pattern_assignment, STATE 908), (sym_type_parameters, STATE 2932),
     (sym__type_name, STATE 2661), (sym__formal_parameter_part, STATE 2339),
     (sym_formal_parameter_list, STATE 2020), (sym__strict_formal_parameter_list, STATE 2016),
     (sym__new_builtin, STATE 2079), (sym_this, STATE 962), (sym_super, STATE 1337),
     (sym_comment, STATE 253), (sym_documentation_comment, STATE 253),
     (aux_sym_string_literal_repeat1, STATE 474), (sym_identifier, ACTIONS 494),
     (anon_sym_POUND, ACTIONS 73), (sym_decimal_integer_literal, ACTIONS 75),
     (sym_hex_integer_literal, ACTIONS 77), (sym_decimal_floating_point_literal, ACTIONS 75),
     (anon_sym_true, ACTIONS 79), (anon_sym_false, ACTIONS 81), (anon_sym_DQUOTE, ACTIONS 83),
     (anon_sym_SQUOTE, ACTIONS 85), (anon_sym_DQUOTE_DQUOTE_DQUOTE, ACTIONS 87),
     (anon_sym_SQUOTE_SQUOTE_SQUOTE, ACTIONS 89), (anon_sym_r_DQUOTE, ACTIONS 91),
     (anon_sym_r_SQUOTE, ACTIONS 93), (anon_sym_r_DQUOTE_DQUOTE_DQUOTE, ACTIONS 95),
     (anon_sym_r_SQUOTE_SQUOTE_SQUOTE, ACTIONS 97), (anon_sym_LBRACE, ACTIONS 442),
     (anon_sym_LBRACK, ACTIONS 103), (anon_sym_null, ACTIONS 105),
     (anon_sym_LPAREN, ACTIONS 498), (anon_sym_throw, ACTIONS 109), (anon_sym_LT, ACTIONS 111),
     (sym_increment_operator, ACTIONS 113), (sym_minus_operator, ACTIONS 117),
     (anon_sym_BANG, ACTIONS 119), (anon_sym_TILDE, ACTIONS 121), (anon_sym_await, ACTIONS 432),
     (anon_sym_switch, ACTIONS 412), (sym_rethrow_builtin, ACTIONS 151),
     (anon_sym_new, ACTIONS 155), (sym_const_builtin, ACTIONS 478), (anon_sym_this, ACTIONS 159),
     (anon_sym_super, ACTIONS 161), (anon_sym_SLASH_SLASH, ACTIONS 3),
     (anon_sym_SLASH_STAR, ACTIONS 5), (anon_sym_SLASH_SLASH_SLASH, ACTIONS 7),
     (sym__block_comment, ACTIONS 9), (sym__documentation_block_comment, ACTIONS 11)]"

lemma row_ok_253: "table_row_ok 253 ts_parse_table_253"
  by (simp add: row_simps ts_parse_table_253_def)

definition ts_parse_table_254 :: table_row where
  "ts_parse_table_254 = [
     (sym__bool_literal, STATE 989), (sym__numeric_literal, STATE 989),
     (sym__literal, STATE 962), (sym_symbol_literal, STATE 989), (sym_true, STATE 900),
     (sym_false, STATE 900), (sym_string_literal, STATE 989),
     (sym__string_literal_double_quotes, STATE 627),
     (sym__string_literal_single_quotes, STATE 627),
     (sym__string_literal_double_quotes_multiple, STATE 627),
     (sym__string_literal_single_quotes_multiple, STATE 627),
     (sym__raw_string_literal_double_quotes, STATE 627),
     (sym__raw_string_literal_single_quotes, STATE 627),
     (sym__raw_string_literal_double_quotes_multiple, STATE 627),
     (sym__raw_string_literal_single_quotes_multiple, STATE 627), (sym_list_literal, STATE 989),
     (sym_set_or_map_literal, STATE 989), (sym_null_literal, STATE 989),
     (sym_record_literal, STATE 989), (sym__record_literal_no_const, STATE 924),
     (sym__expression, STATE 3492), (sym__real_expression, STATE 660),
     (sym_throw_expression, STATE 908), (sym_rethrow_expression, STATE 908),
     (sym_assignment_expression, STATE 908), (sym_assignable_expression, STATE 1940),
     (sym_function_expression, STATE 962), (sym_if_null_expression, STATE 1477),
     (sym_conditional_expression, STATE 1477), (sym_logical_or_expression, STATE 1477),
     (sym_logical_and_expression, STATE 1477), (sym_equality_expression, STATE 1477),
     (sym_type_cast_expression, STATE 1477), (sym_type_test_expression, STATE 1477),
     (sym_relational_expression, STATE 1477), (sym_bitwise_or_expression, STATE 1477),
     (sym_bitwise_xor_expression, STATE 1477), (sym_bitwise_and_expression, STATE 1477),
     (sym_shift_expression, STATE 1477), (sym_additive_expression, STATE 1477),
     (sym_multiplicative_expression, STATE 1477), (sym__unary_expression, STATE 1121),
     (sym_unary_expression, STATE 1303), (sym__postfix_expression, STATE 1303),
     (sym_postfix_expression, STATE 1301), (sym_prefix_operator, STATE 431),
     (sym_negation_operator, STATE 1450), (sym__exclamation_operator, STATE 1451),
     (sym_tilde_operator, STATE 1385), (sym_await_expression, STATE 1302),
     (sym_new_expression, STATE 962), (sym_const_object_expression, STATE 962),
     (sym__primary, STATE 668), (sym_parenthesized_expression, STATE 962),
     (sym_constructor_invocation, STATE 643), (sym_constructor_tearoff, STATE 962),
     (sym_type_arguments, STATE 3200), (sym_switch_expression, STATE 962),
     (sym__parenthesized_pattern, STATE 3182), (sym_list_pattern, STATE 3182),
     (sym_map_pattern, STATE 3182), (sym_record_pattern, STATE 3182),
     (sym_object_pattern, STATE 3182), (sym__outer_pattern, STATE 3410),
     (sym_pattern_assignment, STATE 908), (sym_type_parameters, STATE 2932),
     (sym__type_name, STATE 2661), (sym__formal_parameter_part, STATE 2339),
     (sym_formal_parameter_list, STATE 2020), (sym__strict_formal_parameter_list, STATE 2016),
     (sym__new_builtin, STATE 2079), (sym_this, STATE 962), (sym_super, STATE 1337),
     (sym_comment, STATE 254), (sym_documentation_comment, STATE 254),
     (aux_sym_string_literal_repeat1, STATE 474), (sym_identifier, ACTIONS 494),
     (anon_sym_POUND, ACTIONS 73), (sym_decimal_integer_literal, ACTIONS 75),
     (sym_hex_integer_literal, ACTIONS 77), (sym_decimal_floating_point_literal, ACTIONS 75),
     (anon_sym_true, ACTIONS 79), (anon_sym_false, ACTIONS 81), (anon_sym_DQUOTE, ACTIONS 83),
     (anon_sym_SQUOTE, ACTIONS 85), (anon_sym_DQUOTE_DQUOTE_DQUOTE, ACTIONS 87),
     (anon_sym_SQUOTE_SQUOTE_SQUOTE, ACTIONS 89), (anon_sym_r_DQUOTE, ACTIONS 91),
     (anon_sym_r_SQUOTE, ACTIONS 93), (anon_sym_r_DQUOTE_DQUOTE_DQUOTE, ACTIONS 95),
     (anon_sym_r_SQUOTE_SQUOTE_SQUOTE, ACTIONS 97), (anon_sym_LBRACE, ACTIONS 442),
     (anon_sym_LBRACK, ACTIONS 103), (anon_sym_null, ACTIONS 105),
     (anon_sym_LPAREN, ACTIONS 498), (anon_sym_throw, ACTIONS 109), (anon_sym_LT, ACTIONS 111),
     (sym_increment_operator, ACTIONS 113), (sym_minus_operator, ACTIONS 117),
     (anon_sym_BANG, ACTIONS 119), (anon_sym_TILDE, ACTIONS 121), (anon_sym_await, ACTIONS 432),
     (anon_sym_switch, ACTIONS 412), (sym_rethrow_builtin, ACTIONS 151),
     (anon_sym_new, ACTIONS 155), (sym_const_builtin, ACTIONS 478), (anon_sym_this, ACTIONS 159),
     (anon_sym_super, ACTIONS 161), (anon_sym_SLASH_SLASH, ACTIONS 3),
     (anon_sym_SLASH_STAR, ACTIONS 5), (anon_sym_SLASH_SLASH_SLASH, ACTIONS 7),
     (sym__block_comment, ACTIONS 9), (sym__documentation_block_comment, ACTIONS 11)]"

lemma row_ok_254: "table_row_ok 254 ts_parse_table_254"
  by (simp add: row_simps ts_parse_table_254_def)

definition ts_parse_table_255 :: table_row where
  "ts_parse_table_255 = [
     (sym__bool_literal, STATE 989), (sym__numeric_literal, STATE 989),
     (sym__literal, STATE 962), (sym_symbol_literal, STATE 989), (sym_true, STATE 900),
     (sym_false, STATE 900), (sym_string_literal, STATE 989),
     (sym__string_literal_double_quotes, STATE 627),
     (sym__string_literal_single_quotes, STATE 627),
     (sym__string_literal_double_quotes_multiple, STATE 627),
     (sym__string_literal_single_quotes_multiple, STATE 627),
     (sym__raw_string_literal_double_quotes, STATE 627),
     (sym__raw_string_literal_single_quotes, STATE 627),
     (sym__raw_string_literal_double_quotes_multiple, STATE 627),
     (sym__raw_string_literal_single_quotes_multiple, STATE 627), (sym_list_literal, STATE 989),
     (sym_set_or_map_literal, STATE 989), (sym_null_literal, STATE 989),
     (sym_record_literal, STATE 989), (sym__record_literal_no_const, STATE 924),
     (sym__expression, STATE 3477), (sym__real_expression, STATE 660),
     (sym_throw_expression, STATE 908), (sym_rethrow_expression, STATE 908),
     (sym_assignment_expression, STATE 908), (sym_assignable_expression, STATE 1940),
     (sym_function_expression, STATE 962), (sym_if_null_expression, STATE 1477),
     (sym_conditional_expression, STATE 1477), (sym_logical_or_expression, STATE 1477),
     (sym_logical_and_expression, STATE 1477), (sym_equality_expression, STATE 1477),
     (sym_type_cast_expression, STATE 1477), (sym_type_test_expression, STATE 1477),
     (sym_relational_expression, STATE 1477), (sym_bitwise_or_expression, STATE 1477),
     (sym_bitwise_xor_expression, STATE 1477), (sym_bitwise_and_expression, STATE 1477),
     (sym_shift_expression, STATE 1477), (sym_additive_expression, STATE 1477),
     (sym_multiplicative_expression, STATE 1477), (sym__unary_expression, STATE 1121),
     (sym_unary_expression, STATE 1303), (sym__postfix_expression, STATE 1303),
     (sym_postfix_expression, STATE 1301), (sym_prefix_operator, STATE 431),
     (sym_negation_operator, STATE 1450), (sym__exclamation_operator, STATE 1451),
     (sym_tilde_operator, STATE 1385), (sym_await_expression, STATE 1302),
     (sym_new_expression, STATE 962), (sym_const_object_expression, STATE 962),
     (sym__primary, STATE 668), (sym_parenthesized_expression, STATE 962),
     (sym_constructor_invocation, STATE 643), (sym_constructor_tearoff, STATE 962),
     (sym_type_arguments, STATE 3200), (sym_switch_expression, STATE 962),
     (sym__parenthesized_pattern, STATE 3182), (sym_list_pattern, STATE 3182),
     (sym_map_pattern, STATE 3182), (sym_record_pattern, STATE 3182),
     (sym_object_pattern, STATE 3182), (sym__outer_pattern, STATE 3410),
     (sym_pattern_assignment, STATE 908), (sym_type_parameters, STATE 2932),
     (sym__type_name, STATE 2661), (sym__formal_parameter_part, STATE 2339),
     (sym_formal_parameter_list, STATE 2020), (sym__strict_formal_parameter_list, STATE 2016),
     (sym__new_builtin, STATE 2079), (sym_this, STATE 962), (sym_super, STATE 1337),
     (sym_comment, STATE 255), (sym_documentation_comment, STATE 255),
     (aux_sym_string_literal_repeat1, STATE 474), (sym_identifier, ACTIONS 494),
     (anon_sym_POUND, ACTIONS 73), (sym_decimal_integer_literal, ACTIONS 75),
     (sym_hex_integer_literal, ACTIONS 77), (sym_decimal_floating_point_literal, ACTIONS 75),
     (anon_sym_true, ACTIONS 79), (anon_sym_false, ACTIONS 81), (anon_sym_DQUOTE, ACTIONS 83),
     (anon_sym_SQUOTE, ACTIONS 85), (anon_sym_DQUOTE_DQUOTE_DQUOTE, ACTIONS 87),
     (anon_sym_SQUOTE_SQUOTE_SQUOTE, ACTIONS 89), (anon_sym_r_DQUOTE, ACTIONS 91),
     (anon_sym_r_SQUOTE, ACTIONS 93), (anon_sym_r_DQUOTE_DQUOTE_DQUOTE, ACTIONS 95),
     (anon_sym_r_SQUOTE_SQUOTE_SQUOTE, ACTIONS 97), (anon_sym_LBRACE, ACTIONS 442),
     (anon_sym_LBRACK, ACTIONS 103), (anon_sym_null, ACTIONS 105),
     (anon_sym_LPAREN, ACTIONS 498), (anon_sym_throw, ACTIONS 109), (anon_sym_LT, ACTIONS 111),
     (sym_increment_operator, ACTIONS 113), (sym_minus_operator, ACTIONS 117),
     (anon_sym_BANG, ACTIONS 119), (anon_sym_TILDE, ACTIONS 121), (anon_sym_await, ACTIONS 432),
     (anon_sym_switch, ACTIONS 412), (sym_rethrow_builtin, ACTIONS 151),
     (anon_sym_new, ACTIONS 155), (sym_const_builtin, ACTIONS 478), (anon_sym_this, ACTIONS 159),
     (anon_sym_super, ACTIONS 161), (anon_sym_SLASH_SLASH, ACTIONS 3),
     (anon_sym_SLASH_STAR, ACTIONS 5), (anon_sym_SLASH_SLASH_SLASH, ACTIONS 7),
     (sym__block_comment, ACTIONS 9), (sym__documentation_block_comment, ACTIONS 11)]"

lemma row_ok_255: "table_row_ok 255 ts_parse_table_255"
  by (simp add: row_simps ts_parse_table_255_def)

definition ts_parse_table_256 :: table_row where
  "ts_parse_table_256 = [
     (sym__bool_literal, STATE 989), (sym__numeric_literal, STATE 989),
     (sym__literal, STATE 962), (sym_symbol_literal, STATE 989), (sym_true, STATE 900),
     (sym_false, STATE 900), (sym_string_literal, STATE 989),
     (sym__string_literal_double_quotes, STATE 627),
     (sym__string_literal_single_quotes, STATE 627),
     (sym__string_literal_double_quotes_multiple, STATE 627),
     (sym__string_literal_single_quotes_multiple, STATE 627),
     (sym__raw_string_literal_double_quotes, STATE 627),
     (sym__raw_string_literal_single_quotes, STATE 627),
     (sym__raw_string_literal_double_quotes_multiple, STATE 627),
     (sym__raw_string_literal_single_quotes_multiple, STATE 627), (sym_list_literal, STATE 989),
     (sym_set_or_map_literal, STATE 989), (sym_null_literal, STATE 989),
     (sym_record_literal, STATE 989), (sym__record_literal_no_const, STATE 924),
     (sym__expression, STATE 3219), (sym__real_expression, STATE 660),
     (sym_throw_expression, STATE 908), (sym_rethrow_expression, STATE 908),
     (sym_assignment_expression, STATE 908), (sym_assignable_expression, STATE 1940),
     (sym_function_expression, STATE 962), (sym_if_null_expression, STATE 1477),
     (sym_conditional_expression, STATE 1477), (sym_logical_or_expression, STATE 1477),
     (sym_logical_and_expression, STATE 1477), (sym_equality_expression, STATE 1477),
     (sym_type_cast_expression, STATE 1477), (sym_type_test_expression, STATE 1477),
     (sym_relational_expression, STATE 1477), (sym_bitwise_or_expression, STATE 1477),
     (sym_bitwise_xor_expression, STATE 1477), (sym_bitwise_and_expression, STATE 1477),
     (sym_shift_expression, STATE 1477), (sym_additive_expression, STATE 1477),
     (sym_multiplicative_expression, STATE 1477), (sym__unary_expression, STATE 1121),
     (sym_unary_expression, STATE 1303), (sym__postfix_expression, STATE 1303),
     (sym_postfix_expression, STATE 1301), (sym_prefix_operator, STATE 431),
     (sym_negation_operator, STATE 1450), (sym__exclamation_operator, STATE 1451),
     (sym_tilde_operator, STATE 1385), (sym_await_expression, STATE 1302),
     (sym_new_expression, STATE 962), (sym_const_object_expression, STATE 962),
     (sym__primary, STATE 668), (sym_parenthesized_expression, STATE 962),
     (sym_constructor_invocation, STATE 643), (sym_constructor_tearoff, STATE 962),
     (sym_type_arguments, STATE 3200), (sym_switch_expression, STATE 962),
     (sym__parenthesized_pattern, STATE 3182), (sym_list_pattern, STATE 3182),
     (sym_map_pattern, STATE 3182), (sym_record_pattern, STATE 3182),
     (sym_object_pattern, STATE 3182), (sym__outer_pattern, STATE 3410),
     (sym_pattern_assignment, STATE 908), (sym_type_parameters, STATE 2932),
     (sym__type_name, STATE 2661), (sym__formal_parameter_part, STATE 2339),
     (sym_formal_parameter_list, STATE 2020), (sym__strict_formal_parameter_list, STATE 2016),
     (sym__new_builtin, STATE 2079), (sym_this, STATE 962), (sym_super, STATE 1337),
     (sym_comment, STATE 256), (sym_documentation_comment, STATE 256),
     (aux_sym_string_literal_repeat1, STATE 474), (sym_identifier, ACTIONS 494),
     (anon_sym_POUND, ACTIONS 73), (sym_decimal_integer_literal, ACTIONS 75),
     (sym_hex_integer_literal, ACTIONS 77), (sym_decimal_floating_point_literal, ACTIONS 75),
     (anon_sym_true, ACTIONS 79), (anon_sym_false, ACTIONS 81), (anon_sym_DQUOTE, ACTIONS 83),
     (anon_sym_SQUOTE, ACTIONS 85), (anon_sym_DQUOTE_DQUOTE_DQUOTE, ACTIONS 87),
     (anon_sym_SQUOTE_SQUOTE_SQUOTE, ACTIONS 89), (anon_sym_r_DQUOTE, ACTIONS 91),
     (anon_sym_r_SQUOTE, ACTIONS 93), (anon_sym_r_DQUOTE_DQUOTE_DQUOTE, ACTIONS 95),
     (anon_sym_r_SQUOTE_SQUOTE_SQUOTE, ACTIONS 97), (anon_sym_LBRACE, ACTIONS 442),
     (anon_sym_LBRACK, ACTIONS 103), (anon_sym_null, ACTIONS 105),
     (anon_sym_LPAREN, ACTIONS 498), (anon_sym_throw, ACTIONS 109), (anon_sym_LT, ACTIONS 111),
     (sym_increment_operator, ACTIONS 113), (sym_minus_operator, ACTIONS 117),
     (anon_sym_BANG, ACTIONS 119), (anon_sym_TILDE, ACTIONS 121), (anon_sym_await, ACTIONS 432),
     (anon_sym_switch, ACTIONS 412), (sym_rethrow_builtin, ACTIONS 151),
     (anon_sym_new, ACTIONS 155), (sym_const_builtin, ACTIONS 478), (anon_sym_this, ACTIONS 159),
     (anon_sym_super, ACTIONS 161), (anon_sym_SLASH_SLASH, ACTIONS 3),
     (anon_sym_SLASH_STAR, ACTIONS 5), (anon_sym_SLASH_SLASH_SLASH, ACTIONS 7),
     (sym__block_comment, ACTIONS 9), (sym__documentation_block_comment, ACTIONS 11)]"

lemma row_ok_256: "table_row_ok 256 ts_parse_table_256"
  by (simp add: row_simps ts_parse_table_256_def)

definition ts_parse_table_257 :: table_row where
  "ts_parse_table_257 = [
     (sym__bool_literal, STATE 989), (sym__numeric_literal, STATE 989),
     (sym__literal, STATE 962), (sym_symbol_literal, STATE 989), (sym_true, STATE 900),
     (sym_false, STATE 900), (sym_string_literal, STATE 989),
     (sym__string_literal_double_quotes, STATE 627),
     (sym__string_literal_single_quotes, STATE 627),
     (sym__string_literal_double_quotes_multiple, STATE 627),
     (sym__string_literal_single_quotes_multiple, STATE 627),
     (sym__raw_string_literal_double_quotes, STATE 627),
     (sym__raw_string_literal_single_quotes, STATE 627),
     (sym__raw_string_literal_double_quotes_multiple, STATE 627),
     (sym__raw_string_literal_single_quotes_multiple, STATE 627), (sym_list_literal, STATE 989),
     (sym_set_or_map_literal, STATE 989), (sym_null_literal, STATE 989),
     (sym_record_literal, STATE 989), (sym__record_literal_no_const, STATE 924),
     (sym__expression, STATE 3098), (sym__real_expression, STATE 660),
     (sym_throw_expression, STATE 908), (sym_rethrow_expression, STATE 908),
     (sym_assignment_expression, STATE 908), (sym_assignable_expression, STATE 1940),
     (sym_function_expression, STATE 962), (sym_if_null_expression, STATE 1477),
     (sym_conditional_expression, STATE 1477), (sym_logical_or_expression, STATE 1477),
     (sym_logical_and_expression, STATE 1477), (sym_equality_expression, STATE 1477),
     (sym_type_cast_expression, STATE 1477), (sym_type_test_expression, STATE 1477),
     (sym_relational_expression, STATE 1477), (sym_bitwise_or_expression, STATE 1477),
     (sym_bitwise_xor_expression, STATE 1477), (sym_bitwise_and_expression, STATE 1477),
     (sym_shift_expression, STATE 1477), (sym_additive_expression, STATE 1477),
     (sym_multiplicative_expression, STATE 1477), (sym__unary_expression, STATE 1121),
     (sym_unary_expression, STATE 1303), (sym__postfix_expression, STATE 1303),
     (sym_postfix_expression, STATE 1301), (sym_prefix_operator, STATE 431),
     (sym_negation_operator, STATE 1450), (sym__exclamation_operator, STATE 1451),
     (sym_tilde_operator, STATE 1385), (sym_await_expression, STATE 1302),
     (sym_new_expression, STATE 962), (sym_const_object_expression, STATE 962),
     (sym__primary, STATE 668), (sym_parenthesized_expression, STATE 962),
     (sym_constructor_invocation, STATE 643), (sym_constructor_tearoff, STATE 962),
     (sym_type_arguments, STATE 3200), (sym_switch_expression, STATE 962),
     (sym__parenthesized_pattern, STATE 3182), (sym_list_pattern, STATE 3182),
     (sym_map_pattern, STATE 3182), (sym_record_pattern, STATE 3182),
     (sym_object_pattern, STATE 3182), (sym__outer_pattern, STATE 3410),
     (sym_pattern_assignment, STATE 908), (sym_type_parameters, STATE 2932),
     (sym__type_name, STATE 2661), (sym__formal_parameter_part, STATE 2339),
     (sym_formal_parameter_list, STATE 2020), (sym__strict_formal_parameter_list, STATE 2016),
     (sym__new_builtin, STATE 2079), (sym_this, STATE 962), (sym_super, STATE 1337),
     (sym_comment, STATE 257), (sym_documentation_comment, STATE 257),
     (aux_sym_string_literal_repeat1, STATE 474), (sym_identifier, ACTIONS 494),
     (anon_sym_POUND, ACTIONS 73), (sym_decimal_integer_literal, ACTIONS 75),
     (sym_hex_integer_literal, ACTIONS 77), (sym_decimal_floating_point_literal, ACTIONS 75),
     (anon_sym_true, ACTIONS 79), (anon_sym_false, ACTIONS 81), (anon_sym_DQUOTE, ACTIONS 83),
     (anon_sym_SQUOTE, ACTIONS 85), (anon_sym_DQUOTE_DQUOTE_DQUOTE, ACTIONS 87),
     (anon_sym_SQUOTE_SQUOTE_SQUOTE, ACTIONS 89), (anon_sym_r_DQUOTE, ACTIONS 91),
     (anon_sym_r_SQUOTE, ACTIONS 93), (anon_sym_r_DQUOTE_DQUOTE_DQUOTE, ACTIONS 95),
     (anon_sym_r_SQUOTE_SQUOTE_SQUOTE, ACTIONS 97), (anon_sym_LBRACE, ACTIONS 442),
     (anon_sym_LBRACK, ACTIONS 103), (anon_sym_null, ACTIONS 105),
     (anon_sym_LPAREN, ACTIONS 498), (anon_sym_throw, ACTIONS 109), (anon_sym_LT, ACTIONS 111),
     (sym_increment_operator, ACTIONS 113), (sym_minus_operator, ACTIONS 117),
     (anon_sym_BANG, ACTIONS 119), (anon_sym_TILDE, ACTIONS 121), (anon_sym_await, ACTIONS 432),
     (anon_sym_switch, ACTIONS 412), (sym_rethrow_builtin, ACTIONS 151),
     (anon_sym_new, ACTIONS 155), (sym_const_builtin, ACTIONS 478), (anon_sym_this, ACTIONS 159),
     (anon_sym_super, ACTIONS 161), (anon_sym_SLASH_SLASH, ACTIONS 3),
     (anon_sym_SLASH_STAR, ACTIONS 5), (anon_sym_SLASH_SLASH_SLASH, ACTIONS 7),
     (sym__block_comment, ACTIONS 9), (sym__documentation_block_comment, ACTIONS 11)]"

lemma row_ok_257: "table_row_ok 257 ts_parse_table_257"
  by (simp add: row_simps ts_parse_table_257_def)

definition ts_parse_table_258 :: table_row where
  "ts_parse_table_258 = [
     (sym__bool_literal, STATE 989), (sym__numeric_literal, STATE 989),
     (sym__literal, STATE 962), (sym_symbol_literal, STATE 989), (sym_true, STATE 900),
     (sym_false, STATE 900), (sym_string_literal, STATE 989),
     (sym__string_literal_double_quotes, STATE 627),
     (sym__string_literal_single_quotes, STATE 627),
     (sym__string_literal_double_quotes_multiple, STATE 627),
     (sym__string_literal_single_quotes_multiple, STATE 627),
     (sym__raw_string_literal_double_quotes, STATE 627),
     (sym__raw_string_literal_single_quotes, STATE 627),
     (sym__raw_string_literal_double_quotes_multiple, STATE 627),
     (sym__raw_string_literal_single_quotes_multiple, STATE 627), (sym_list_literal, STATE 989),
     (sym_set_or_map_literal, STATE 989), (sym_null_literal, STATE 989),
     (sym_record_literal, STATE 989), (sym__record_literal_no_const, STATE 924),
     (sym__expression, STATE 3124), (sym__real_expression, STATE 660),
     (sym_throw_expression, STATE 908), (sym_rethrow_expression, STATE 908),
     (sym_assignment_expression, STATE 908), (sym_assignable_expression, STATE 1940),
     (sym_function_expression, STATE 962), (sym_if_null_expression, STATE 1477),
     (sym_conditional_expression, STATE 1477), (sym_logical_or_expression, STATE 1477),
     (sym_logical_and_expression, STATE 1477), (sym_equality_expression, STATE 1477),
     (sym_type_cast_expression, STATE 1477), (sym_type_test_expression, STATE 1477),
     (sym_relational_expression, STATE 1477), (sym_bitwise_or_expression, STATE 1477),
     (sym_bitwise_xor_expression, STATE 1477), (sym_bitwise_and_expression, STATE 1477),
     (sym_shift_expression, STATE 1477), (sym_additive_expression, STATE 1477),
     (sym_multiplicative_expression, STATE 1477), (sym__unary_expression, STATE 1121),
     (sym_unary_expression, STATE 1303), (sym__postfix_expression, STATE 1303),
     (sym_postfix_expression, STATE 1301), (sym_prefix_operator, STATE 431),
     (sym_negation_operator, STATE 1450), (sym__exclamation_operator, STATE 1451),
     (sym_tilde_operator, STATE 1385), (sym_await_expression, STATE 1302),
     (sym_new_expression, STATE 962), (sym_const_object_expression, STATE 962),
     (sym__primary, STATE 668), (sym_parenthesized_expression, STATE 962),
     (sym_constructor_invocation, STATE 643), (sym_constructor_tearoff, STATE 962),
     (sym_type_arguments, STATE 3200), (sym_switch_expression, STATE 962),
     (sym__parenthesized_pattern, STATE 3182), (sym_list_pattern, STATE 3182),
     (sym_map_pattern, STATE 3182), (sym_record_pattern, STATE 3182),
     (sym_object_pattern, STATE 3182), (sym__outer_pattern, STATE 3410),
     (sym_pattern_assignment, STATE 908), (sym_type_parameters, STATE 2932),
     (sym__type_name, STATE 2661), (sym__formal_parameter_part, STATE 2339),
     (sym_formal_parameter_list, STATE 2020), (sym__strict_formal_parameter_list, STATE 2016),
     (sym__new_builtin, STATE 2079), (sym_this, STATE 962), (sym_super, STATE 1337),
     (sym_comment, STATE 258), (sym_documentation_comment, STATE 258),
     (aux_sym_string_literal_repeat1, STATE 474), (sym_identifier, ACTIONS 494),
     (anon_sym_POUND, ACTIONS 73), (sym_decimal_integer_literal, ACTIONS 75),
     (sym_hex_integer_literal, ACTIONS 77), (sym_decimal_floating_point_literal, ACTIONS 75),
     (anon_sym_true, ACTIONS 79), (anon_sym_false, ACTIONS 81), (anon_sym_DQUOTE, ACTIONS 83),
     (anon_sym_SQUOTE, ACTIONS 85), (anon_sym_DQUOTE_DQUOTE_DQUOTE, ACTIONS 87),
     (anon_sym_SQUOTE_SQUOTE_SQUOTE, ACTIONS 89), (anon_sym_r_DQUOTE, ACTIONS 91),
     (anon_sym_r_SQUOTE, ACTIONS 93), (anon_sym_r_DQUOTE_DQUOTE_DQUOTE, ACTIONS 95),
     (anon_sym_r_SQUOTE_SQUOTE_SQUOTE, ACTIONS 97), (anon_sym_LBRACE, ACTIONS 442),
     (anon_sym_LBRACK, ACTIONS 103), (anon_sym_null, ACTIONS 105),
     (anon_sym_LPAREN, ACTIONS 498), (anon_sym_throw, ACTIONS 109), (anon_sym_LT, ACTIONS 111),
     (sym_increment_operator, ACTIONS 113), (sym_minus_operator, ACTIONS 117),
     (anon_sym_BANG, ACTIONS 119), (anon_sym_TILDE, ACTIONS 121), (anon_sym_await, ACTIONS 432),
     (anon_sym_switch, ACTIONS 412), (sym_rethrow_builtin, ACTIONS 151),
     (anon_sym_new, ACTIONS 155), (sym_const_builtin, ACTIONS 478), (anon_sym_this, ACTIONS 159),
     (anon_sym_super, ACTIONS 161), (anon_sym_SLASH_SLASH, ACTIONS 3),
     (anon_sym_SLASH_STAR, ACTIONS 5), (anon_sym_SLASH_SLASH_SLASH, ACTIONS 7),
     (sym__block_comment, ACTIONS 9), (sym__documentation_block_comment, ACTIONS 11)]"

lemma row_ok_258: "table_row_ok 258 ts_parse_table_258"
  by (simp add: row_simps ts_parse_table_258_def)

definition ts_parse_table_259 :: table_row where
  "ts_parse_table_259 = [
     (sym__bool_literal, STATE 989), (sym__numeric_literal, STATE 989),
     (sym__literal, STATE 962), (sym_symbol_literal, STATE 989), (sym_true, STATE 900),
     (sym_false, STATE 900), (sym_string_literal, STATE 989),
     (sym__string_literal_double_quotes, STATE 627),
     (sym__string_literal_single_quotes, STATE 627),
     (sym__string_literal_double_quotes_multiple, STATE 627),
     (sym__string_literal_single_quotes_multiple, STATE 627),
     (sym__raw_string_literal_double_quotes, STATE 627),
     (sym__raw_string_literal_single_quotes, STATE 627),
     (sym__raw_string_literal_double_quotes_multiple, STATE 627),
     (sym__raw_string_literal_single_quotes_multiple, STATE 627), (sym_list_literal, STATE 989),
     (sym_set_or_map_literal, STATE 989), (sym_null_literal, STATE 989),
     (sym_record_literal, STATE 989), (sym__record_literal_no_const, STATE 924),
     (sym__expression, STATE 3442), (sym__real_expression, STATE 660),
     (sym_throw_expression, STATE 908), (sym_rethrow_expression, STATE 908),
     (sym_assignment_expression, STATE 908), (sym_assignable_expression, STATE 1940),
     (sym_function_expression, STATE 962), (sym_if_null_expression, STATE 1477),
     (sym_conditional_expression, STATE 1477), (sym_logical_or_expression, STATE 1477),
     (sym_logical_and_expression, STATE 1477), (sym_equality_expression, STATE 1477),
     (sym_type_cast_expression, STATE 1477), (sym_type_test_expression, STATE 1477),
     (sym_relational_expression, STATE 1477), (sym_bitwise_or_expression, STATE 1477),
     (sym_bitwise_xor_expression, STATE 1477), (sym_bitwise_and_expression, STATE 1477),
     (sym_shift_expression, STATE 1477), (sym_additive_expression, STATE 1477),
     (sym_multiplicative_expression, STATE 1477), (sym__unary_expression, STATE 1121),
     (sym_unary_expression, STATE 1303), (sym__postfix_expression, STATE 1303),
     (sym_postfix_expression, STATE 1301), (sym_prefix_operator, STATE 431),
     (sym_negation_operator, STATE 1450), (sym__exclamation_operator, STATE 1451),
     (sym_tilde_operator, STATE 1385), (sym_await_expression, STATE 1302),
     (sym_new_expression, STATE 962), (sym_const_object_expression, STATE 962),
     (sym__primary, STATE 668), (sym_parenthesized_expression, STATE 962),
     (sym_constructor_invocation, STATE 643), (sym_constructor_tearoff, STATE 962),
     (sym_type_arguments, STATE 3200), (sym_switch_expression, STATE 962),
     (sym__parenthesized_pattern, STATE 3182), (sym_list_pattern, STATE 3182),
     (sym_map_pattern, STATE 3182), (sym_record_pattern, STATE 3182),
     (sym_object_pattern, STATE 3182), (sym__outer_pattern, STATE 3410),
     (sym_pattern_assignment, STATE 908), (sym_type_parameters, STATE 2932),
     (sym__type_name, STATE 2661), (sym__formal_parameter_part, STATE 2339),
     (sym_formal_parameter_list, STATE 2020), (sym__strict_formal_parameter_list, STATE 2016),
     (sym__new_builtin, STATE 2079), (sym_this, STATE 962), (sym_super, STATE 1337),
     (sym_comment, STATE 259), (sym_documentation_comment, STATE 259),
     (aux_sym_string_literal_repeat1, STATE 474), (sym_identifier, ACTIONS 494),
     (anon_sym_POUND, ACTIONS 73), (sym_decimal_integer_literal, ACTIONS 75),
     (sym_hex_integer_literal, ACTIONS 77), (sym_decimal_floating_point_literal, ACTIONS 75),
     (anon_sym_true, ACTIONS 79), (anon_sym_false, ACTIONS 81), (anon_sym_DQUOTE, ACTIONS 83),
     (anon_sym_SQUOTE, ACTIONS 85), (anon_sym_DQUOTE_DQUOTE_DQUOTE, ACTIONS 87),
     (anon_sym_SQUOTE_SQUOTE_SQUOTE, ACTIONS 89), (anon_sym_r_DQUOTE, ACTIONS 91),
     (anon_sym_r_SQUOTE, ACTIONS 93), (anon_sym_r_DQUOTE_DQUOTE_DQUOTE, ACTIONS 95),
     (anon_sym_r_SQUOTE_SQUOTE_SQUOTE, ACTIONS 97), (anon_sym_LBRACE, ACTIONS 442),
     (anon_sym_LBRACK, ACTIONS 103), (anon_sym_null, ACTIONS 105),
     (anon_sym_LPAREN, ACTIONS 498), (anon_sym_throw, ACTIONS 109), (anon_sym_LT, ACTIONS 111),
     (sym_increment_operator, ACTIONS 113), (sym_minus_operator, ACTIONS 117),
     (anon_sym_BANG, ACTIONS 119), (anon_sym_TILDE, ACTIONS 121), (anon_sym_await, ACTIONS 432),
     (anon_sym_switch, ACTIONS 412), (sym_rethrow_builtin, ACTIONS 151),
     (anon_sym_new, ACTIONS 155), (sym_const_builtin, ACTIONS 478), (anon_sym_this, ACTIONS 159),
     (anon_sym_super, ACTIONS 161), (anon_sym_SLASH_SLASH, ACTIONS 3),
     (anon_sym_SLASH_STAR, ACTIONS 5), (anon_sym_SLASH_SLASH_SLASH, ACTIONS 7),
     (sym__block_comment, ACTIONS 9), (sym__documentation_block_comment, ACTIONS 11)]"

lemma row_ok_259: "table_row_ok 259 ts_parse_table_259"
  by (simp add: row_simps ts_parse_table_259_def)

definition ts_parse_table_260 :: table_row where
  "ts_parse_table_260 = [
     (sym__bool_literal, STATE 989), (sym__numeric_literal, STATE 989),
     (sym__literal, STATE 962), (sym_symbol_literal, STATE 989), (sym_true, STATE 900),
     (sym_false, STATE 900), (sym_string_literal, STATE 989),
     (sym__string_literal_double_quotes, STATE 627),
     (sym__string_literal_single_quotes, STATE 627),
     (sym__string_literal_double_quotes_multiple, STATE 627),
     (sym__string_literal_single_quotes_multiple, STATE 627),
     (sym__raw_string_literal_double_quotes, STATE 627),
     (sym__raw_string_literal_single_quotes, STATE 627),
     (sym__raw_string_literal_double_quotes_multiple, STATE 627),
     (sym__raw_string_literal_single_quotes_multiple, STATE 627), (sym_list_literal, STATE 989),
     (sym_set_or_map_literal, STATE 989), (sym_null_literal, STATE 989),
     (sym_record_literal, STATE 989), (sym__record_literal_no_const, STATE 924),
     (sym__expression, STATE 3228), (sym__real_expression, STATE 660),
     (sym_throw_expression, STATE 908), (sym_rethrow_expression, STATE 908),
     (sym_assignment_expression, STATE 908), (sym_assignable_expression, STATE 1940),
     (sym_function_expression, STATE 962), (sym_if_null_expression, STATE 1477),
     (sym_conditional_expression, STATE 1477), (sym_logical_or_expression, STATE 1477),
     (sym_logical_and_expression, STATE 1477), (sym_equality_expression, STATE 1477),
     (sym_type_cast_expression, STATE 1477), (sym_type_test_expression, STATE 1477),
     (sym_relational_expression, STATE 1477), (sym_bitwise_or_expression, STATE 1477),
     (sym_bitwise_xor_expression, STATE 1477), (sym_bitwise_and_expression, STATE 1477),
     (sym_shift_expression, STATE 1477), (sym_additive_expression, STATE 1477),
     (sym_multiplicative_expression, STATE 1477), (sym__unary_expression, STATE 1121),
     (sym_unary_expression, STATE 1303), (sym__postfix_expression, STATE 1303),
     (sym_postfix_expression, STATE 1301), (sym_prefix_operator, STATE 431),
     (sym_negation_operator, STATE 1450), (sym__exclamation_operator, STATE 1451),
     (sym_tilde_operator, STATE 1385), (sym_await_expression, STATE 1302),
     (sym_new_expression, STATE 962), (sym_const_object_expression, STATE 962),
     (sym__primary, STATE 668), (sym_parenthesized_expression, STATE 962),
     (sym_constructor_invocation, STATE 643), (sym_constructor_tearoff, STATE 962),
     (sym_type_arguments, STATE 3200), (sym_switch_expression, STATE 962),
     (sym__parenthesized_pattern, STATE 3182), (sym_list_pattern, STATE 3182),
     (sym_map_pattern, STATE 3182), (sym_record_pattern, STATE 3182),
     (sym_object_pattern, STATE 3182), (sym__outer_pattern, STATE 3410),
     (sym_pattern_assignment, STATE 908), (sym_type_parameters, STATE 2932),
     (sym__type_name, STATE 2661), (sym__formal_parameter_part, STATE 2339),
     (sym_formal_parameter_list, STATE 2020), (sym__strict_formal_parameter_list, STATE 2016),
     (sym__new_builtin, STATE 2079), (sym_this, STATE 962), (sym_super, STATE 1337),
     (sym_comment, STATE 260), (sym_documentation_comment, STATE 260),
     (aux_sym_string_literal_repeat1, STATE 474), (sym_identifier, ACTIONS 494),
     (anon_sym_POUND, ACTIONS 73), (sym_decimal_integer_literal, ACTIONS 75),
     (sym_hex_integer_literal, ACTIONS 77), (sym_decimal_floating_point_literal, ACTIONS 75),
     (anon_sym_true, ACTIONS 79), (anon_sym_false, ACTIONS 81), (anon_sym_DQUOTE, ACTIONS 83),
     (anon_sym_SQUOTE, ACTIONS 85), (anon_sym_DQUOTE_DQUOTE_DQUOTE, ACTIONS 87),
     (anon_sym_SQUOTE_SQUOTE_SQUOTE, ACTIONS 89), (anon_sym_r_DQUOTE, ACTIONS 91),
     (anon_sym_r_SQUOTE, ACTIONS 93), (anon_sym_r_DQUOTE_DQUOTE_DQUOTE, ACTIONS 95),
     (anon_sym_r_SQUOTE_SQUOTE_SQUOTE, ACTIONS 97), (anon_sym_LBRACE, ACTIONS 442),
     (anon_sym_LBRACK, ACTIONS 103), (anon_sym_null, ACTIONS 105),
     (anon_sym_LPAREN, ACTIONS 498), (anon_sym_throw, ACTIONS 109), (anon_sym_LT, ACTIONS 111),
     (sym_increment_operator, ACTIONS 113), (sym_minus_operator, ACTIONS 117),
     (anon_sym_BANG, ACTIONS 119), (anon_sym_TILDE, ACTIONS 121), (anon_sym_await, ACTIONS 432),
     (anon_sym_switch, ACTIONS 412), (sym_rethrow_builtin, ACTIONS 151),
     (anon_sym_new, ACTIONS 155), (sym_const_builtin, ACTIONS 478), (anon_sym_this, ACTIONS 159),
     (anon_sym_super, ACTIONS 161), (anon_sym_SLASH_SLASH, ACTIONS 3),
     (anon_sym_SLASH_STAR, ACTIONS 5), (anon_sym_SLASH_SLASH_SLASH, ACTIONS 7),
     (sym__block_comment, ACTIONS 9), (sym__documentation_block_comment, ACTIONS 11)]"

lemma row_ok_260: "table_row_ok 260 ts_parse_table_260"
  by (simp add: row_simps ts_parse_table_260_def)

definition ts_parse_table_261 :: table_row where
  "ts_parse_table_261 = [
     (sym__bool_literal, STATE 989), (sym__numeric_literal, STATE 989),
     (sym__literal, STATE 962), (sym_symbol_literal, STATE 989), (sym_true, STATE 900),
     (sym_false, STATE 900), (sym_string_literal, STATE 989),
     (sym__string_literal_double_quotes, STATE 627),
     (sym__string_literal_single_quotes, STATE 627),
     (sym__string_literal_double_quotes_multiple, STATE 627),
     (sym__string_literal_single_quotes_multiple, STATE 627),
     (sym__raw_string_literal_double_quotes, STATE 627),
     (sym__raw_string_literal_single_quotes, STATE 627),
     (sym__raw_string_literal_double_quotes_multiple, STATE 627),
     (sym__raw_string_literal_single_quotes_multiple, STATE 627), (sym_list_literal, STATE 989),
     (sym_set_or_map_literal, STATE 989), (sym_null_literal, STATE 989),
     (sym_record_literal, STATE 989), (sym__record_literal_no_const, STATE 924),
     (sym__expression, STATE 2399), (sym__real_expression, STATE 722),
     (sym_throw_expression, STATE 2393), (sym_rethrow_expression, STATE 2393),
     (sym_assignment_expression, STATE 2393), (sym_assignable_expression, STATE 1952),
     (sym_function_expression, STATE 962), (sym_if_null_expression, STATE 996),
     (sym_conditional_expression, STATE 996), (sym_logical_or_expression, STATE 996),
     (sym_logical_and_expression, STATE 996), (sym_equality_expression, STATE 996),
     (sym_type_cast_expression, STATE 996), (sym_type_test_expression, STATE 996),
     (sym_relational_expression, STATE 996), (sym_bitwise_or_expression, STATE 996),
     (sym_bitwise_xor_expression, STATE 996), (sym_bitwise_and_expression, STATE 996),
     (sym_shift_expression, STATE 996), (sym_additive_expression, STATE 996),
     (sym_multiplicative_expression, STATE 996), (sym__unary_expression, STATE 1323),
     (sym_unary_expression, STATE 994), (sym__postfix_expression, STATE 994),
     (sym_postfix_expression, STATE 993), (sym_prefix_operator, STATE 421),
     (sym_negation_operator, STATE 1450), (sym__exclamation_operator, STATE 1451),
     (sym_tilde_operator, STATE 1357), (sym_await_expression, STATE 991),
     (sym_new_expression, STATE 962), (sym_const_object_expression, STATE 962),
     (sym__primary, STATE 648), (sym_parenthesized_expression, STATE 962),
     (sym_constructor_invocation, STATE 643), (sym_constructor_tearoff, STATE 962),
     (sym_type_arguments, STATE 3200), (sym_switch_expression, STATE 962),
     (sym__parenthesized_pattern, STATE 3182), (sym_list_pattern, STATE 3182),
     (sym_map_pattern, STATE 3182), (sym_record_pattern, STATE 3182),
     (sym_object_pattern, STATE 3182), (sym__outer_pattern, STATE 3533),
     (sym_pattern_assignment, STATE 2393), (sym_type_parameters, STATE 2932),
     (sym__type_name, STATE 2661), (sym__formal_parameter_part, STATE 2339),
     (sym_formal_parameter_list, STATE 2020), (sym__strict_formal_parameter_list, STATE 2016),
     (sym__new_builtin, STATE 2079), (sym_this, STATE 962), (sym_super, STATE 1339),
     (sym_comment, STATE 261), (sym_documentation_comment, STATE 261),
     (aux_sym_string_literal_repeat1, STATE 474), (sym_identifier, ACTIONS 494),
     (anon_sym_POUND, ACTIONS 73), (sym_decimal_integer_literal, ACTIONS 75),
     (sym_hex_integer_literal, ACTIONS 77), (sym_decimal_floating_point_literal, ACTIONS 75),
     (anon_sym_true, ACTIONS 79), (anon_sym_false, ACTIONS 81), (anon_sym_DQUOTE, ACTIONS 83),
     (anon_sym_SQUOTE, ACTIONS 85), (anon_sym_DQUOTE_DQUOTE_DQUOTE, ACTIONS 87),
     (anon_sym_SQUOTE_SQUOTE_SQUOTE, ACTIONS 89), (anon_sym_r_DQUOTE, ACTIONS 91),
     (anon_sym_r_SQUOTE, ACTIONS 93), (anon_sym_r_DQUOTE_DQUOTE_DQUOTE, ACTIONS 95),
     (anon_sym_r_SQUOTE_SQUOTE_SQUOTE, ACTIONS 97), (anon_sym_LBRACE, ACTIONS 442),
     (anon_sym_LBRACK, ACTIONS 103), (anon_sym_null, ACTIONS 105),
     (anon_sym_LPAREN, ACTIONS 498), (anon_sym_throw, ACTIONS 750), (anon_sym_LT, ACTIONS 111),
     (sym_increment_operator, ACTIONS 688), (sym_minus_operator, ACTIONS 690),
     (anon_sym_BANG, ACTIONS 119), (anon_sym_TILDE, ACTIONS 121), (anon_sym_await, ACTIONS 692),
     (anon_sym_switch, ACTIONS 412), (sym_rethrow_builtin, ACTIONS 752),
     (anon_sym_new, ACTIONS 155), (sym_const_builtin, ACTIONS 478), (anon_sym_this, ACTIONS 159),
     (anon_sym_super, ACTIONS 161), (anon_sym_SLASH_SLASH, ACTIONS 3),
     (anon_sym_SLASH_STAR, ACTIONS 5), (anon_sym_SLASH_SLASH_SLASH, ACTIONS 7),
     (sym__block_comment, ACTIONS 9), (sym__documentation_block_comment, ACTIONS 11)]"

lemma row_ok_261: "table_row_ok 261 ts_parse_table_261"
  by (simp add: row_simps ts_parse_table_261_def)

definition ts_parse_table_262 :: table_row where
  "ts_parse_table_262 = [
     (sym__bool_literal, STATE 989), (sym__numeric_literal, STATE 989),
     (sym__literal, STATE 962), (sym_symbol_literal, STATE 989), (sym_true, STATE 900),
     (sym_false, STATE 900), (sym_string_literal, STATE 989),
     (sym__string_literal_double_quotes, STATE 627),
     (sym__string_literal_single_quotes, STATE 627),
     (sym__string_literal_double_quotes_multiple, STATE 627),
     (sym__string_literal_single_quotes_multiple, STATE 627),
     (sym__raw_string_literal_double_quotes, STATE 627),
     (sym__raw_string_literal_single_quotes, STATE 627),
     (sym__raw_string_literal_double_quotes_multiple, STATE 627),
     (sym__raw_string_literal_single_quotes_multiple, STATE 627), (sym_list_literal, STATE 989),
     (sym_set_or_map_literal, STATE 989), (sym_null_literal, STATE 989),
     (sym_record_literal, STATE 989), (sym__record_literal_no_const, STATE 924),
     (sym__expression, STATE 3034), (sym__real_expression, STATE 660),
     (sym_throw_expression, STATE 908), (sym_rethrow_expression, STATE 908),
     (sym_assignment_expression, STATE 908), (sym_assignable_expression, STATE 1940),
     (sym_function_expression, STATE 962), (sym_if_null_expression, STATE 1477),
     (sym_conditional_expression, STATE 1477), (sym_logical_or_expression, STATE 1477),
     (sym_logical_and_expression, STATE 1477), (sym_equality_expression, STATE 1477),
     (sym_type_cast_expression, STATE 1477), (sym_type_test_expression, STATE 1477),
     (sym_relational_expression, STATE 1477), (sym_bitwise_or_expression, STATE 1477),
     (sym_bitwise_xor_expression, STATE 1477), (sym_bitwise_and_expression, STATE 1477),
     (sym_shift_expression, STATE 1477), (sym_additive_expression, STATE 1477),
     (sym_multiplicative_expression, STATE 1477), (sym__unary_expression, STATE 1121),
     (sym_unary_expression, STATE 1303), (sym__postfix_expression, STATE 1303),
     (sym_postfix_expression, STATE 1301), (sym_prefix_operator, STATE 431),
     (sym_negation_operator, STATE 1450), (sym__exclamation_operator, STATE 1451),
     (sym_tilde_operator, STATE 1385), (sym_await_expression, STATE 1302),
     (sym_new_expression, STATE 962), (sym_const_object_expression, STATE 962),
     (sym__primary, STATE 668), (sym_parenthesized_expression, STATE 962),
     (sym_constructor_invocation, STATE 643), (sym_constructor_tearoff, STATE 962),
     (sym_type_arguments, STATE 3200), (sym_switch_expression, STATE 962),
     (sym__parenthesized_pattern, STATE 3182), (sym_list_pattern, STATE 3182),
     (sym_map_pattern, STATE 3182), (sym_record_pattern, STATE 3182),
     (sym_object_pattern, STATE 3182), (sym__outer_pattern, STATE 3410),
     (sym_pattern_assignment, STATE 908), (sym_type_parameters, STATE 2932),
     (sym__type_name, STATE 2661), (sym__formal_parameter_part, STATE 2339),
     (sym_formal_parameter_list, STATE 2020), (sym__strict_formal_parameter_list, STATE 2016),
     (sym__new_builtin, STATE 2079), (sym_this, STATE 962), (sym_super, STATE 1337),
     (sym_comment, STATE 262), (sym_documentation_comment, STATE 262),
     (aux_sym_string_literal_repeat1, STATE 474), (sym_identifier, ACTIONS 494),
     (anon_sym_POUND, ACTIONS 73), (sym_decimal_integer_literal, ACTIONS 75),
     (sym_hex_integer_literal, ACTIONS 77), (sym_decimal_floating_point_literal, ACTIONS 75),
     (anon_sym_true, ACTIONS 79), (anon_sym_false, ACTIONS 81), (anon_sym_DQUOTE, ACTIONS 83),
     (anon_sym_SQUOTE, ACTIONS 85), (anon_sym_DQUOTE_DQUOTE_DQUOTE, ACTIONS 87),
     (anon_sym_SQUOTE_SQUOTE_SQUOTE, ACTIONS 89), (anon_sym_r_DQUOTE, ACTIONS 91),
     (anon_sym_r_SQUOTE, ACTIONS 93), (anon_sym_r_DQUOTE_DQUOTE_DQUOTE, ACTIONS 95),
     (anon_sym_r_SQUOTE_SQUOTE_SQUOTE, ACTIONS 97), (anon_sym_LBRACE, ACTIONS 442),
     (anon_sym_LBRACK, ACTIONS 103), (anon_sym_null, ACTIONS 105),
     (anon_sym_LPAREN, ACTIONS 498), (anon_sym_throw, ACTIONS 109), (anon_sym_LT, ACTIONS 111),
     (sym_increment_operator, ACTIONS 113), (sym_minus_operator, ACTIONS 117),
     (anon_sym_BANG, ACTIONS 119), (anon_sym_TILDE, ACTIONS 121), (anon_sym_await, ACTIONS 432),
     (anon_sym_switch, ACTIONS 412), (sym_rethrow_builtin, ACTIONS 151),
     (anon_sym_new, ACTIONS 155), (sym_const_builtin, ACTIONS 478), (anon_sym_this, ACTIONS 159),
     (anon_sym_super, ACTIONS 161), (anon_sym_SLASH_SLASH, ACTIONS 3),
     (anon_sym_SLASH_STAR, ACTIONS 5), (anon_sym_SLASH_SLASH_SLASH, ACTIONS 7),
     (sym__block_comment, ACTIONS 9), (sym__documentation_block_comment, ACTIONS 11)]"

lemma row_ok_262: "table_row_ok 262 ts_parse_table_262"
  by (simp add: row_simps ts_parse_table_262_def)

definition ts_parse_table_263 :: table_row where
  "ts_parse_table_263 = [
     (sym__bool_literal, STATE 989), (sym__numeric_literal, STATE 989),
     (sym__literal, STATE 962), (sym_symbol_literal, STATE 989), (sym_true, STATE 900),
     (sym_false, STATE 900), (sym_string_literal, STATE 989),
     (sym__string_literal_double_quotes, STATE 627),
     (sym__string_literal_single_quotes, STATE 627),
     (sym__string_literal_double_quotes_multiple, STATE 627),
     (sym__string_literal_single_quotes_multiple, STATE 627),
     (sym__raw_string_literal_double_quotes, STATE 627),
     (sym__raw_string_literal_single_quotes, STATE 627),
     (sym__raw_string_literal_double_quotes_multiple, STATE 627),
     (sym__raw_string_literal_single_quotes_multiple, STATE 627), (sym_list_literal, STATE 989),
     (sym_set_or_map_literal, STATE 989), (sym_null_literal, STATE 989),
     (sym_record_literal, STATE 989), (sym__record_literal_no_const, STATE 924),
     (sym__expression, STATE 2606), (sym__real_expression, STATE 660),
     (sym_throw_expression, STATE 908), (sym_rethrow_expression, STATE 908),
     (sym_assignment_expression, STATE 908), (sym_assignable_expression, STATE 1940),
     (sym_function_expression, STATE 962), (sym_if_null_expression, STATE 1477),
     (sym_conditional_expression, STATE 1477), (sym_logical_or_expression, STATE 1477),
     (sym_logical_and_expression, STATE 1477), (sym_equality_expression, STATE 1477),
     (sym_type_cast_expression, STATE 1477), (sym_type_test_expression, STATE 1477),
     (sym_relational_expression, STATE 1477), (sym_bitwise_or_expression, STATE 1477),
     (sym_bitwise_xor_expression, STATE 1477), (sym_bitwise_and_expression, STATE 1477),
     (sym_shift_expression, STATE 1477), (sym_additive_expression, STATE 1477),
     (sym_multiplicative_expression, STATE 1477), (sym__unary_expression, STATE 1121),
     (sym_unary_expression, STATE 1303), (sym__postfix_expression, STATE 1303),
     (sym_postfix_expression, STATE 1301), (sym_prefix_operator, STATE 431),
     (sym_negation_operator, STATE 1450), (sym__exclamation_operator, STATE 1451),
     (sym_tilde_operator, STATE 1385), (sym_await_expression, STATE 1302),
     (sym_new_expression, STATE 962), (sym_const_object_expression, STATE 962),
     (sym__primary, STATE 668), (sym_parenthesized_expression, STATE 962),
     (sym_constructor_invocation, STATE 643), (sym_constructor_tearoff, STATE 962),
     (sym_type_arguments, STATE 3200), (sym_switch_expression, STATE 962),
     (sym__parenthesized_pattern, STATE 3182), (sym_list_pattern, STATE 3182),
     (sym_map_pattern, STATE 3182), (sym_record_pattern, STATE 3182),
     (sym_object_pattern, STATE 3182), (sym__outer_pattern, STATE 3410),
     (sym_pattern_assignment, STATE 908), (sym_type_parameters, STATE 2932),
     (sym__type_name, STATE 2661), (sym__formal_parameter_part, STATE 2339),
     (sym_formal_parameter_list, STATE 2020), (sym__strict_formal_parameter_list, STATE 2016),
     (sym__new_builtin, STATE 2079), (sym_this, STATE 962), (sym_super, STATE 1337),
     (sym_comment, STATE 263), (sym_documentation_comment, STATE 263),
     (aux_sym_string_literal_repeat1, STATE 474), (sym_identifier, ACTIONS 494),
     (anon_sym_POUND, ACTIONS 73), (sym_decimal_integer_literal, ACTIONS 75),
     (sym_hex_integer_literal, ACTIONS 77), (sym_decimal_floating_point_literal, ACTIONS 75),
     (anon_sym_true, ACTIONS 79), (anon_sym_false, ACTIONS 81), (anon_sym_DQUOTE, ACTIONS 83),
     (anon_sym_SQUOTE, ACTIONS 85), (anon_sym_DQUOTE_DQUOTE_DQUOTE, ACTIONS 87),
     (anon_sym_SQUOTE_SQUOTE_SQUOTE, ACTIONS 89), (anon_sym_r_DQUOTE, ACTIONS 91),
     (anon_sym_r_SQUOTE, ACTIONS 93), (anon_sym_r_DQUOTE_DQUOTE_DQUOTE, ACTIONS 95),
     (anon_sym_r_SQUOTE_SQUOTE_SQUOTE, ACTIONS 97), (anon_sym_LBRACE, ACTIONS 442),
     (anon_sym_LBRACK, ACTIONS 103), (anon_sym_null, ACTIONS 105),
     (anon_sym_LPAREN, ACTIONS 498), (anon_sym_throw, ACTIONS 109), (anon_sym_LT, ACTIONS 111),
     (sym_increment_operator, ACTIONS 113), (sym_minus_operator, ACTIONS 117),
     (anon_sym_BANG, ACTIONS 119), (anon_sym_TILDE, ACTIONS 121), (anon_sym_await, ACTIONS 432),
     (anon_sym_switch, ACTIONS 412), (sym_rethrow_builtin, ACTIONS 151),
     (anon_sym_new, ACTIONS 155), (sym_const_builtin, ACTIONS 478), (anon_sym_this, ACTIONS 159),
     (anon_sym_super, ACTIONS 161), (anon_sym_SLASH_SLASH, ACTIONS 3),
     (anon_sym_SLASH_STAR, ACTIONS 5), (anon_sym_SLASH_SLASH_SLASH, ACTIONS 7),
     (sym__block_comment, ACTIONS 9), (sym__documentation_block_comment, ACTIONS 11)]"

lemma row_ok_263: "table_row_ok 263 ts_parse_table_263"
  by (simp add: row_simps ts_parse_table_263_def)

definition ts_parse_table_264 :: table_row where
  "ts_parse_table_264 = [
     (sym__bool_literal, STATE 989), (sym__numeric_literal, STATE 989),
     (sym__literal, STATE 962), (sym_symbol_literal, STATE 989), (sym_true, STATE 900),
     (sym_false, STATE 900), (sym_string_literal, STATE 989),
     (sym__string_literal_double_quotes, STATE 627),
     (sym__string_literal_single_quotes, STATE 627),
     (sym__string_literal_double_quotes_multiple, STATE 627),
     (sym__string_literal_single_quotes_multiple, STATE 627),
     (sym__raw_string_literal_double_quotes, STATE 627),
     (sym__raw_string_literal_single_quotes, STATE 627),
     (sym__raw_string_literal_double_quotes_multiple, STATE 627),
     (sym__raw_string_literal_single_quotes_multiple, STATE 627), (sym_list_literal, STATE 989),
     (sym_set_or_map_literal, STATE 989), (sym_null_literal, STATE 989),
     (sym_record_literal, STATE 989), (sym__record_literal_no_const, STATE 924),
     (sym__expression, STATE 1003), (sym__real_expression, STATE 660),
     (sym_throw_expression, STATE 908), (sym_rethrow_expression, STATE 908),
     (sym_assignment_expression, STATE 908), (sym_assignable_expression, STATE 1940),
     (sym_function_expression, STATE 962), (sym_if_null_expression, STATE 1477),
     (sym_conditional_expression, STATE 1477), (sym_logical_or_expression, STATE 1477),
     (sym_logical_and_expression, STATE 1477), (sym_equality_expression, STATE 1477),
     (sym_type_cast_expression, STATE 1477), (sym_type_test_expression, STATE 1477),
     (sym_relational_expression, STATE 1477), (sym_bitwise_or_expression, STATE 1477),
     (sym_bitwise_xor_expression, STATE 1477), (sym_bitwise_and_expression, STATE 1477),
     (sym_shift_expression, STATE 1477), (sym_additive_expression, STATE 1477),
     (sym_multiplicative_expression, STATE 1477), (sym__unary_expression, STATE 1121),
     (sym_unary_expression, STATE 1303), (sym__postfix_expression, STATE 1303),
     (sym_postfix_expression, STATE 1301), (sym_prefix_operator, STATE 431),
     (sym_negation_operator, STATE 1450), (sym__exclamation_operator, STATE 1451),
     (sym_tilde_operator, STATE 1385), (sym_await_expression, STATE 1302),
     (sym_new_expression, STATE 962), (sym_const_object_expression, STATE 962),
     (sym__primary, STATE 668), (sym_parenthesized_expression, STATE 962),
     (sym_constructor_invocation, STATE 643), (sym_constructor_tearoff, STATE 962),
     (sym_type_arguments, STATE 3200), (sym_switch_expression, STATE 962),
     (sym__parenthesized_pattern, STATE 3182), (sym_list_pattern, STATE 3182),
     (sym_map_pattern, STATE 3182), (sym_record_pattern, STATE 3182),
     (sym_object_pattern, STATE 3182), (sym__outer_pattern, STATE 3410),
     (sym_pattern_assignment, STATE 908), (sym_type_parameters, STATE 2932),
     (sym__type_name, STATE 2661), (sym__formal_parameter_part, STATE 2339),
     (sym_formal_parameter_list, STATE 2020), (sym__strict_formal_parameter_list, STATE 2016),
     (sym__new_builtin, STATE 2079), (sym_this, STATE 962), (sym_super, STATE 1337),
     (sym_comment, STATE 264), (sym_documentation_comment, STATE 264),
     (aux_sym_string_literal_repeat1, STATE 474), (sym_identifier, ACTIONS 494),
     (anon_sym_POUND, ACTIONS 73), (sym_decimal_integer_literal, ACTIONS 75),
     (sym_hex_integer_literal, ACTIONS 77), (sym_decimal_floating_point_literal, ACTIONS 75),
     (anon_sym_true, ACTIONS 79), (anon_sym_false, ACTIONS 81), (anon_sym_DQUOTE, ACTIONS 83),
     (anon_sym_SQUOTE, ACTIONS 85), (anon_sym_DQUOTE_DQUOTE_DQUOTE, ACTIONS 87),
     (anon_sym_SQUOTE_SQUOTE_SQUOTE, ACTIONS 89), (anon_sym_r_DQUOTE, ACTIONS 91),
     (anon_sym_r_SQUOTE, ACTIONS 93), (anon_sym_r_DQUOTE_DQUOTE_DQUOTE, ACTIONS 95),
     (anon_sym_r_SQUOTE_SQUOTE_SQUOTE, ACTIONS 97), (anon_sym_LBRACE, ACTIONS 442),
     (anon_sym_LBRACK, ACTIONS 103), (anon_sym_null, ACTIONS 105),
     (anon_sym_LPAREN, ACTIONS 498), (anon_sym_throw, ACTIONS 109), (anon_sym_LT, ACTIONS 111),
     (sym_increment_operator, ACTIONS 113), (sym_minus_operator, ACTIONS 117),
     (anon_sym_BANG, ACTIONS 119), (anon_sym_TILDE, ACTIONS 121), (anon_sym_await, ACTIONS 432),
     (anon_sym_switch, ACTIONS 412), (sym_rethrow_builtin, ACTIONS 151),
     (anon_sym_new, ACTIONS 155), (sym_const_builtin, ACTIONS 478), (anon_sym_this, ACTIONS 159),
     (anon_sym_super, ACTIONS 161), (anon_sym_SLASH_SLASH, ACTIONS 3),
     (anon_sym_SLASH_STAR, ACTIONS 5), (anon_sym_SLASH_SLASH_SLASH, ACTIONS 7),
     (sym__block_comment, ACTIONS 9), (sym__documentation_block_comment, ACTIONS 11)]"

lemma row_ok_264: "table_row_ok 264 ts_parse_table_264"
  by (simp add: row_simps ts_parse_table_264_def)

definition ts_parse_table_rows_5 :: "(TSStateId \<times> table_row) list" where
  "ts_parse_table_rows_5 = [
     (204, ts_parse_table_204), (205, ts_parse_table_205), (206, ts_parse_table_206),
     (207, ts_parse_table_207), (208, ts_parse_table_208), (209, ts_parse_table_209),
     (210, ts_parse_table_210), (211, ts_parse_table_211), (212, ts_parse_table_212),
     (213, ts_parse_table_213), (214, ts_parse_table_214), (215, ts_parse_table_215),
     (216, ts_parse_table_216), (217, ts_parse_table_217), (218, ts_parse_table_218),
     (219, ts_parse_table_219), (220, ts_parse_table_220), (221, ts_parse_table_221),
     (222, ts_parse_table_222), (223, ts_parse_table_223), (224, ts_parse_table_224),
     (225, ts_parse_table_225), (226, ts_parse_table_226), (227, ts_parse_table_227),
     (228, ts_parse_table_228), (229, ts_parse_table_229), (230, ts_parse_table_230),
     (231, ts_parse_table_231), (232, ts_parse_table_232), (233, ts_parse_table_233),
     (234, ts_parse_table_234), (235, ts_parse_table_235), (236, ts_parse_table_236),
     (237, ts_parse_table_237), (238, ts_parse_table_238), (239, ts_parse_table_239),
     (240, ts_parse_table_240), (241, ts_parse_table_241), (242, ts_parse_table_242),
     (243, ts_parse_table_243), (244, ts_parse_table_244), (245, ts_parse_table_245),
     (246, ts_parse_table_246), (247, ts_parse_table_247), (248, ts_parse_table_248),
     (249, ts_parse_table_249), (250, ts_parse_table_250), (251, ts_parse_table_251),
     (252, ts_parse_table_252), (253, ts_parse_table_253), (254, ts_parse_table_254),
     (255, ts_parse_table_255), (256, ts_parse_table_256), (257, ts_parse_table_257),
     (258, ts_parse_table_258), (259, ts_parse_table_259), (260, ts_parse_table_260),
     (261, ts_parse_table_261), (262, ts_parse_table_262), (263, ts_parse_table_263),
     (264, ts_parse_table_264)]"

lemma rows_ok_5: "list_all (\<lambda>(s, es). table_row_ok s es) ts_parse_table_rows_5"
  by (simp add: ts_parse_table_rows_5_def
    row_ok_204 row_ok_205 row_ok_206 row_ok_207 row_ok_208 row_ok_209 row_ok_210 row_ok_211 row_ok_212
    row_ok_213 row_ok_214 row_ok_215 row_ok_216 row_ok_217 row_ok_218 row_ok_219 row_ok_220 row_ok_221
    row_ok_222 row_ok_223 row_ok_224 row_ok_225 row_ok_226 row_ok_227 row_ok_228 row_ok_229 row_ok_230
    row_ok_231 row_ok_232 row_ok_233 row_ok_234 row_ok_235 row_ok_236 row_ok_237 row_ok_238 row_ok_239
    row_ok_240 row_ok_241 row_ok_242 row_ok_243 row_ok_244 row_ok_245 row_ok_246 row_ok_247 row_ok_248
    row_ok_249 row_ok_250 row_ok_251 row_ok_252 row_ok_253 row_ok_254 row_ok_255 row_ok_256 row_ok_257
    row_ok_258 row_ok_259 row_ok_260 row_ok_261 row_ok_262 row_ok_263 row_ok_264)

lemma row_keys_5: "map fst ts_parse_table_rows_5 = [204..<265]"
  by (simp add: ts_parse_table_rows_5_def upt_from_0)

end
