(* ===== verification/Dart_Rows_6.thy ===== *)
theory Dart_Rows_6
  imports Dart_Items
begin

text \<open>
  The rows 265 to 330 of \<^verbatim>\<open>ts_parse_table\<close>, each with the check of its entries.
\<close>

definition ts_parse_table_265 :: table_row where
  "ts_parse_table_265 = [
     (sym__bool_literal, STATE 989), (sym__numeric_literal, STATE 989),
     (sym__literal, STATE 962), (sym_symbol_literal, STATE 989), (sym_true, STATE 900),
     (sym_false, STATE 900), (sym_string_literal, STATE 989),
     (sym__string_literal_double_quotes, STATE 627),
     (sym__string_literal_single_quotes, STATE 627),
     (sym__string_literal_double_quotes_multiple, STATE 627),
     (sym__string_literal_single_quotes_multiple, STATE 627),
     (sym__raw_string_literal_double_quotes, STATE 627),
     (sym__raw_string_literal_single_quotes, STATE 627),
     (sym__raw_string_literal_double_quotes_multiple, STATE 627),
     (sym__raw_string_literal_single_quotes_multiple, STATE 627), (sym_list_literal, STATE 989),
     (sym_set_or_map_literal, STATE 989), (sym_null_literal, STATE 989),
     (sym_record_literal, STATE 989), (sym__record_literal_no_const, STATE 924),
     (sym__expression, STATE 2415), (sym__real_expression, STATE 722),
     (sym_throw_expression, STATE 2393), (sym_rethrow_expression, STATE 2393),
     (sym_assignment_expression, STATE 2393), (sym_assignable_expression, STATE 1952),
     (sym_function_expression, STATE 962), (sym_if_null_expression, STATE 996),
     (sym_conditional_expression, STATE 996), (sym_logical_or_expression, STATE 996),
     (sym_logical_and_expression, STATE 996), (sym_equality_expression, STATE 996),
     (sym_type_cast_expression, STATE 996), (sym_type_test_expression, STATE 996),
     (sym_relational_expression, STATE 996), (sym_bitwise_or_expression, STATE 996),
     (sym_bitwise_xor_expression, STATE 996), (sym_bitwise_and_expression, STATE 996),
     (sym_shift_expression, STATE 996), (sym_additive_expression, STATE 996),
     (sym_multiplicative_expression, STATE 996), (sym__unary_expression, STATE 1323),
     (sym_unary_expression, STATE 994), (sym__postfix_expression, STATE 994),
     (sym_postfix_expression, STATE 993), (sym_prefix_operator, STATE 421),
     (sym_negation_operator, STATE 1450), (sym__exclamation_operator, STATE 1451),
     (sym_tilde_operator, STATE 1357), (sym_await_expression, STATE 991),
     (sym_new_expression, STATE 962), (sym_const_object_expression, STATE 962),
     (sym__primary, STATE 648), (sym_parenthesized_expression, STATE 962),
     (sym_constructor_invocation, STATE 643), (sym_constructor_tearoff, STATE 962),
     (sym_type_arguments, STATE 3200), (sym_switch_expression, STATE 962),
     (sym__parenthesized_pattern, STATE 3182), (sym_list_pattern, STATE 3182),
     (sym_map_pattern, STATE 3182), (sym_record_pattern, STATE 3182),
     (sym_object_pattern, STATE 3182), (sym__outer_pattern, STATE 3533),
     (sym_pattern_assignment, STATE 2393), (sym_type_parameters, STATE 2932),
     (sym__type_name, STATE 2661), (sym__formal_parameter_part, STATE 2339),
     (sym_formal_parameter_list, STATE 2020), (sym__strict_formal_parameter_list, STATE 2016),
     (sym__new_builtin, STATE 2079), (sym_this, STATE 962), (sym_super, STATE 1339),
     (sym_comment, STATE 265), (sym_documentation_comment, STATE 265),
     (aux_sym_string_literal_repeat1, STATE 474), (sym_identifier, ACTIONS 494),
     (anon_sym_POUND, ACTIONS 73), (sym_decimal_integer_literal, ACTIONS 75),
     (sym_hex_integer_literal, ACTIONS 77), (sym_decimal_floating_point_literal, ACTIONS 75),
     (anon_sym_true, ACTIONS 79), (anon_sym_false, ACTIONS 81), (anon_sym_DQUOTE, ACTIONS 83),
     (anon_sym_SQUOTE, ACTIONS 85), (anon_sym_DQUOTE_DQUOTE_DQUOTE, ACTIONS 87),
     (anon_sym_SQUOTE_SQUOTE_SQUOTE, ACTIONS 89), (anon_sym_r_DQUOTE, ACTIONS 91),
     (anon_sym_r_SQUOTE, ACTIONS 93), (anon_sym_r_DQUOTE_DQUOTE_DQUOTE, ACTIONS 95),
     (anon_sym_r_SQUOTE_SQUOTE_SQUOTE, ACTIONS 97), (anon_sym_LBRACE, ACTIONS 442),
     (anon_sym_LBRACK, ACTIONS 103), (anon_sym_null, ACTIONS 105),
     (anon_sym_LPAREN, ACTIONS 498), (anon_sym_throw, ACTIONS 750), (anon_sym_LT, ACTIONS 111),
     (sym_increment_operator, ACTIONS 688), (sym_minus_operator, ACTIONS 690),
     (anon_sym_BANG, ACTIONS 119), (anon_sym_TILDE, ACTIONS 121), (anon_sym_await, ACTIONS 692),
     (anon_sym_switch, ACTIONS 412), (sym_rethrow_builtin, ACTIONS 752),
     (anon_sym_new, ACTIONS 155), (sym_const_builtin, ACTIONS 478), (anon_sym_this, ACTIONS 159),
     (anon_sym_super, ACTIONS 161), (anon_sym_SLASH_SLASH, ACTIONS 3),
     (anon_sym_SLASH_STAR, ACTIONS 5), (anon_sym_SLASH_SLASH_SLASH, ACTIONS 7),
     (sym__block_comment, ACTIONS 9), (sym__documentation_block_comment, ACTIONS 11)]"

lemma row_ok_265: "table_row_ok 265 ts_parse_table_265"
  by (simp add: row_simps ts_parse_table_265_def)

definition ts_parse_table_266 :: table_row where
  "ts_parse_table_266 = [
     (sym__bool_literal, STATE 989), (sym__numeric_literal, STATE 989),
     (sym__literal, STATE 962), (sym_symbol_literal, STATE 989), (sym_true, STATE 900),
     (sym_false, STATE 900), (sym_string_literal, STATE 989),
     (sym__string_literal_double_quotes, STATE 627),
     (sym__string_literal_single_quotes, STATE 627),
     (sym__string_literal_double_quotes_multiple, STATE 627),
     (sym__string_literal_single_quotes_multiple, STATE 627),
     (sym__raw_string_literal_double_quotes, STATE 627),
     (sym__raw_string_literal_single_quotes, STATE 627),
     (sym__raw_string_literal_double_quotes_multiple, STATE 627),
     (sym__raw_string_literal_single_quotes_multiple, STATE 627), (sym_list_literal, STATE 989),
     (sym_set_or_map_literal, STATE 989), (sym_null_literal, STATE 989),
     (sym_record_literal, STATE 989), (sym__record_literal_no_const, STATE 924),
     (sym__expression, STATE 3519), (sym__real_expression, STATE 660),
     (sym_throw_expression, STATE 908), (sym_rethrow_expression, STATE 908),
     (sym_assignment_expression, STATE 908), (sym_assignable_expression, STATE 1940),
     (sym_function_expression, STATE 962), (sym_if_null_expression, STATE 1477),
     (sym_conditional_expression, STATE 1477), (sym_logical_or_expression, STATE 1477),
     (sym_logical_and_expression, STATE 1477), (sym_equality_expression, STATE 1477),
     (sym_type_cast_expression, STATE 1477), (sym_type_test_expression, STATE 1477),
     (sym_relational_expression, STATE 1477), (sym_bitwise_or_expression, STATE 1477),
     (sym_bitwise_xor_expression, STATE 1477), (sym_bitwise_and_expression, STATE 1477),
     (sym_shift_expression, STATE 1477), (sym_additive_expression, STATE 1477),
     (sym_multiplicative_expression, STATE 1477), (sym__unary_expression, STATE 1121),
     (sym_unary_expression, STATE 1303), (sym__postfix_expression, STATE 1303),
     (sym_postfix_expression, STATE 1301), (sym_prefix_operator, STATE 431),
     (sym_negation_operator, STATE 1450), (sym__exclamation_operator, STATE 1451),
     (sym_tilde_operator, STATE 1385), (sym_await_expression, STATE 1302),
     (sym_new_expression, STATE 962), (sym_const_object_expression, STATE 962),
     (sym__primary, STATE 668), (sym_parenthesized_expression, STATE 962),
     (sym_constructor_invocation, STATE 643), (sym_constructor_tearoff, STATE 962),
     (sym_type_arguments, STATE 3200), (sym_switch_expression, STATE 962),
     (sym__parenthesized_pattern, STATE 3182), (sym_list_pattern, STATE 3182),
     (sym_map_pattern, STATE 3182), (sym_record_pattern, STATE 3182),
     (sym_object_pattern, STATE 3182), (sym__outer_pattern, STATE 3410),
     (sym_pattern_assignment, STATE 908), (sym_type_parameters, STATE 2932),
     (sym__type_name, STATE 2661), (sym__formal_parameter_part, STATE 2339),
     (sym_formal_parameter_list, STATE 2020), (sym__strict_formal_parameter_list, STATE 2016),
     (sym__new_builtin, STATE 2079), (sym_this, STATE 962), (sym_super, STATE 1337),
     (sym_comment, STATE 266), (sym_documentation_comment, STATE 266),
     (aux_sym_string_literal_repeat1, STATE 474), (sym_identifier, ACTIONS 494),
     (anon_sym_POUND, ACTIONS 73), (sym_decimal_integer_literal, ACTIONS 75),
     (sym_hex_integer_literal, ACTIONS 77), (sym_decimal_floating_point_literal, ACTIONS 75),
     (anon_sym_true, ACTIONS 79), (anon_sym_false, ACTIONS 81), (anon_sym_DQUOTE, ACTIONS 83),
     (anon_sym_SQUOTE, ACTIONS 85), (anon_sym_DQUOTE_DQUOTE_DQUOTE, ACTIONS 87),
     (anon_sym_SQUOTE_SQUOTE_SQUOTE, ACTIONS 89), (anon_sym_r_DQUOTE, ACTIONS 91),
     (anon_sym_r_SQUOTE, ACTIONS 93), (anon_sym_r_DQUOTE_DQUOTE_DQUOTE, ACTIONS 95),
     (anon_sym_r_SQUOTE_SQUOTE_SQUOTE, ACTIONS 97), (anon_sym_LBRACE, ACTIONS 442),
     (anon_sym_LBRACK, ACTIONS 103), (anon_sym_null, ACTIONS 105),
     (anon_sym_LPAREN, ACTIONS 498), (anon_sym_throw, ACTIONS 109), (anon_sym_LT, ACTIONS 111),
     (sym_increment_operator, ACTIONS 113), (sym_minus_operator, ACTIONS 117),
     (anon_sym_BANG, ACTIONS 119), (anon_sym_TILDE, ACTIONS 121), (anon_sym_await, ACTIONS 432),
     (anon_sym_switch, ACTIONS 412), (sym_rethrow_builtin, ACTIONS 151),
     (anon_sym_new, ACTIONS 155), (sym_const_builtin, ACTIONS 478), (anon_sym_this, ACTIONS 159),
     (anon_sym_super, ACTIONS 161), (anon_sym_SLASH_SLASH, ACTIONS 3),
     (anon_sym_SLASH_STAR, ACTIONS 5), (anon_sym_SLASH_SLASH_SLASH, ACTIONS 7),
     (sym__block_comment, ACTIONS 9), (sym__documentation_block_comment, ACTIONS 11)]"

lemma row_ok_266: "table_row_ok 266 ts_parse_table_266"
  by (simp add: row_simps ts_parse_table_266_def)

definition ts_parse_table_267 :: table_row where
  "ts_parse_table_267 = [
     (sym__bool_literal, STATE 989), (sym__numeric_literal, STATE 989),
     (sym__literal, STATE 962), (sym_symbol_literal, STATE 989), (sym_true, STATE 900),
     (sym_false, STATE 900), (sym_string_literal, STATE 989),
     (sym__string_literal_double_quotes, STATE 627),
     (sym__string_literal_single_quotes, STATE 627),
     (sym__string_literal_double_quotes_multiple, STATE 627),
     (sym__string_literal_single_quotes_multiple, STATE 627),
     (sym__raw_string_literal_double_quotes, STATE 627),
     (sym__raw_string_literal_single_quotes, STATE 627),
     (sym__raw_string_literal_double_quotes_multiple, STATE 627),
     (sym__raw_string_literal_single_quotes_multiple, STATE 627), (sym_list_literal, STATE 989),
     (sym_set_or_map_literal, STATE 989), (sym_null_literal, STATE 989),
     (sym_record_literal, STATE 989), (sym__record_literal_no_const, STATE 924),
     (sym__expression, STATE 945), (sym__real_expression, STATE 481),
     (sym_throw_expression, STATE 908), (sym_rethrow_expression, STATE 908),
     (sym_assignment_expression, STATE 908), (sym_assignable_expression, STATE 1955),
     (sym_function_expression, STATE 962), (sym_if_null_expression, STATE 996),
     (sym_conditional_expression, STATE 996), (sym_logical_or_expression, STATE 996),
     (sym_logical_and_expression, STATE 996), (sym_equality_expression, STATE 996),
     (sym_type_cast_expression, STATE 996), (sym_type_test_expression, STATE 996),
     (sym_relational_expression, STATE 996), (sym_bitwise_or_expression, STATE 996),
     (sym_bitwise_xor_expression, STATE 996), (sym_bitwise_and_expression, STATE 996),
     (sym_shift_expression, STATE 996), (sym_additive_expression, STATE 996),
     (sym_multiplicative_expression, STATE 996), (sym__unary_expression, STATE 787),
     (sym_unary_expression, STATE 994), (sym__postfix_expression, STATE 994),
     (sym_postfix_expression, STATE 993), (sym_prefix_operator, STATE 421),
     (sym_negation_operator, STATE 1450), (sym__exclamation_operator, STATE 1451),
     (sym_tilde_operator, STATE 1357), (sym_await_expression, STATE 991),
     (sym_new_expression, STATE 962), (sym_const_object_expression, STATE 962),
     (sym__primary, STATE 648), (sym_parenthesized_expression, STATE 962),
     (sym_constructor_invocation, STATE 643), (sym_constructor_tearoff, STATE 962),
     (sym_type_arguments, STATE 3200), (sym_switch_expression, STATE 962),
     (sym__parenthesized_pattern, STATE 3182), (sym_list_pattern, STATE 3182),
     (sym_map_pattern, STATE 3182), (sym_record_pattern, STATE 3182),
     (sym_object_pattern, STATE 3182), (sym__outer_pattern, STATE 3395),
     (sym_pattern_assignment, STATE 908), (sym_type_parameters, STATE 2932),
     (sym__type_name, STATE 2661), (sym__formal_parameter_part, STATE 2339),
     (sym_formal_parameter_list, STATE 2020), (sym__strict_formal_parameter_list, STATE 2016),
     (sym__new_builtin, STATE 2079), (sym_this, STATE 962), (sym_super, STATE 1338),
     (sym_comment, STATE 267), (sym_documentation_comment, STATE 267),
     (aux_sym_string_literal_repeat1, STATE 474), (sym_identifier, ACTIONS 494),
     (anon_sym_POUND, ACTIONS 73), (sym_decimal_integer_literal, ACTIONS 75),
     (sym_hex_integer_literal, ACTIONS 77), (sym_decimal_floating_point_literal, ACTIONS 75),
     (anon_sym_true, ACTIONS 79), (anon_sym_false, ACTIONS 81), (anon_sym_DQUOTE, ACTIONS 83),
     (anon_sym_SQUOTE, ACTIONS 85), (anon_sym_DQUOTE_DQUOTE_DQUOTE, ACTIONS 87),
     (anon_sym_SQUOTE_SQUOTE_SQUOTE, ACTIONS 89), (anon_sym_r_DQUOTE, ACTIONS 91),
     (anon_sym_r_SQUOTE, ACTIONS 93), (anon_sym_r_DQUOTE_DQUOTE_DQUOTE, ACTIONS 95),
     (anon_sym_r_SQUOTE_SQUOTE_SQUOTE, ACTIONS 97), (anon_sym_LBRACE, ACTIONS 442),
     (anon_sym_LBRACK, ACTIONS 103), (anon_sym_null, ACTIONS 105),
     (anon_sym_LPAREN, ACTIONS 498), (anon_sym_throw, ACTIONS 748), (anon_sym_LT, ACTIONS 111),
     (sym_increment_operator, ACTIONS 688), (sym_minus_operator, ACTIONS 690),
     (anon_sym_BANG, ACTIONS 119), (anon_sym_TILDE, ACTIONS 121), (anon_sym_await, ACTIONS 692),
     (anon_sym_switch, ACTIONS 412), (sym_rethrow_builtin, ACTIONS 151),
     (anon_sym_new, ACTIONS 155), (sym_const_builtin, ACTIONS 478), (anon_sym_this, ACTIONS 159),
     (anon_sym_super, ACTIONS 161), (anon_sym_SLASH_SLASH, ACTIONS 3),
     (anon_sym_SLASH_STAR, ACTIONS 5), (anon_sym_SLASH_SLASH_SLASH, ACTIONS 7),
     (sym__block_comment, ACTIONS 9), (sym__documentation_block_comment, ACTIONS 11)]"

lemma row_ok_267: "table_row_ok 267 ts_parse_table_267"
  by (simp add: row_simps ts_parse_table_267_def)

definition ts_parse_table_268 :: table_row where
  "ts_parse_table_268 = [
     (sym__bool_literal, STATE 989), (sym__numeric_literal, STATE 989),
     (sym__literal, STATE 962), (sym_symbol_literal, STATE 989), (sym_true, STATE 900),
     (sym_false, STATE 900), (sym_string_literal, STATE 989),
     (sym__string_literal_double_quotes, STATE 627),
     (sym__string_literal_single_quotes, STATE 627),
     (sym__string_literal_double_quotes_multiple, STATE 627),
     (sym__string_literal_single_quotes_multiple, STATE 627),
     (sym__raw_string_literal_double_quotes, STATE 627),
     (sym__raw_string_literal_single_quotes, STATE 627),
     (sym__raw_string_literal_double_quotes_multiple, STATE 627),
     (sym__raw_string_literal_single_quotes_multiple, STATE 627), (sym_list_literal, STATE 989),
     (sym_set_or_map_literal, STATE 989), (sym_null_literal, STATE 989),
     (sym_record_literal, STATE 989), (sym__record_literal_no_const, STATE 924),
     (sym__expression, STATE 2332), (sym__real_expression, STATE 722),
     (sym_throw_expression, STATE 2393), (sym_rethrow_expression, STATE 2393),
     (sym_assignment_expression, STATE 2393), (sym_assignable_expression, STATE 1952),
     (sym_function_expression, STATE 962), (sym_if_null_expression, STATE 996),
     (sym_conditional_expression, STATE 996), (sym_logical_or_expression, STATE 996),
     (sym_logical_and_expression, STATE 996), (sym_equality_expression, STATE 996),
     (sym_type_cast_expression, STATE 996), (sym_type_test_expression, STATE 996),
     (sym_relational_expression, STATE 996), (sym_bitwise_or_expression, STATE 996),
     (sym_bitwise_xor_expression, STATE 996), (sym_bitwise_and_expression, STATE 996),
     (sym_shift_expression, STATE 996), (sym_additive_expression, STATE 996),
     (sym_multiplicative_expression, STATE 996), (sym__unary_expression, STATE 1323),
     (sym_unary_expression, STATE 994), (sym__postfix_expression, STATE 994),
     (sym_postfix_expression, STATE 993), (sym_prefix_operator, STATE 421),
     (sym_negation_operator, STATE 1450), (sym__exclamation_operator, STATE 1451),
     (sym_tilde_operator, STATE 1357), (sym_await_expression, STATE 991),
     (sym_new_expression, STATE 962), (sym_const_object_expression, STATE 962),
     (sym__primary, STATE 648), (sym_parenthesized_expression, STATE 962),
     (sym_constructor_invocation, STATE 643), (sym_constructor_tearoff, STATE 962),
     (sym_type_arguments, STATE 3200), (sym_switch_expression, STATE 962),
     (sym__parenthesized_pattern, STATE 3182), (sym_list_pattern, STATE 3182),
     (sym_map_pattern, STATE 3182), (sym_record_pattern, STATE 3182),
     (sym_object_pattern, STATE 3182), (sym__outer_pattern, STATE 3533),
     (sym_pattern_assignment, STATE 2393), (sym_type_parameters, STATE 2932),
     (sym__type_name, STATE 2661), (sym__formal_parameter_part, STATE 2339),
     (sym_formal_parameter_list, STATE 2020), (sym__strict_formal_parameter_list, STATE 2016),
     (sym__new_builtin, STATE 2079), (sym_this, STATE 962), (sym_super, STATE 1339),
     (sym_comment, STATE 268), (sym_documentation_comment, STATE 268),
     (aux_sym_string_literal_repeat1, STATE 474), (sym_identifier, ACTIONS 494),
     (anon_sym_POUND, ACTIONS 73), (sym_decimal_integer_literal, ACTIONS 75),
     (sym_hex_integer_literal, ACTIONS 77), (sym_decimal_floating_point_literal, ACTIONS 75),
     (anon_sym_true, ACTIONS 79), (anon_sym_false, ACTIONS 81), (anon_sym_DQUOTE, ACTIONS 83),
     (anon_sym_SQUOTE, ACTIONS 85), (anon_sym_DQUOTE_DQUOTE_DQUOTE, ACTIONS 87),
     (anon_sym_SQUOTE_SQUOTE_SQUOTE, ACTIONS 89), (anon_sym_r_DQUOTE, ACTIONS 91),
     (anon_sym_r_SQUOTE, ACTIONS 93), (anon_sym_r_DQUOTE_DQUOTE_DQUOTE, ACTIONS 95),
     (anon_sym_r_SQUOTE_SQUOTE_SQUOTE, ACTIONS 97), (anon_sym_LBRACE, ACTIONS 442),
     (anon_sym_LBRACK, ACTIONS 103), (anon_sym_null, ACTIONS 105),
     (anon_sym_LPAREN, ACTIONS 498), (anon_sym_throw, ACTIONS 750), (anon_sym_LT, ACTIONS 111),
     (sym_increment_operator, ACTIONS 688), (sym_minus_operator, ACTIONS 690),
     (anon_sym_BANG, ACTIONS 119), (anon_sym_TILDE, ACTIONS 121), (anon_sym_await, ACTIONS 692),
     (anon_sym_switch, ACTIONS 412), (sym_rethrow_builtin, ACTIONS 752),
     (anon_sym_new, ACTIONS 155), (sym_const_builtin, ACTIONS 478), (anon_sym_this, ACTIONS 159),
     (anon_sym_super, ACTIONS 161), (anon_sym_SLASH_SLASH, ACTIONS 3),
     (anon_sym_SLASH_STAR, ACTIONS 5), (anon_sym_SLASH_SLASH_SLASH, ACTIONS 7),
     (sym__block_comment, ACTIONS 9), (sym__documentation_block_comment, ACTIONS 11)]"

lemma row_ok_268: "table_row_ok 268 ts_parse_table_268"
  by (simp add: row_simps ts_parse_table_268_def)

definition ts_parse_table_269 :: table_row where
  "ts_parse_table_269 = [
     (sym__bool_literal, STATE 989), (sym__numeric_literal, STATE 989),
     (sym__literal, STATE 962), (sym_symbol_literal, STATE 989), (sym_true, STATE 900),
     (sym_false, STATE 900), (sym_string_literal, STATE 989),
     (sym__string_literal_double_quotes, STATE 627),
     (sym__string_literal_single_quotes, STATE 627),
     (sym__string_literal_double_quotes_multiple, STATE 627),
     (sym__string_literal_single_quotes_multiple, STATE 627),
     (sym__raw_string_literal_double_quotes, STATE 627),
     (sym__raw_string_literal_single_quotes, STATE 627),
     (sym__raw_string_literal_double_quotes_multiple, STATE 627),
     (sym__raw_string_literal_single_quotes_multiple, STATE 627), (sym_list_literal, STATE 989),
     (sym_set_or_map_literal, STATE 989), (sym_null_literal, STATE 989),
     (sym_record_literal, STATE 989), (sym__record_literal_no_const, STATE 924),
     (sym__expression, STATE 941), (sym__real_expression, STATE 481),
     (sym_throw_expression, STATE 908), (sym_rethrow_expression, STATE 908),
     (sym_assignment_expression, STATE 908), (sym_assignable_expression, STATE 1955),
     (sym_function_expression, STATE 962), (sym_if_null_expression, STATE 996),
     (sym_conditional_expression, STATE 996), (sym_logical_or_expression, STATE 996),
     (sym_logical_and_expression, STATE 996), (sym_equality_expression, STATE 996),
     (sym_type_cast_expression, STATE 996), (sym_type_test_expression, STATE 996),
     (sym_relational_expression, STATE 996), (sym_bitwise_or_expression, STATE 996),
     (sym_bitwise_xor_expression, STATE 996), (sym_bitwise_and_expression, STATE 996),
     (sym_shift_expression, STATE 996), (sym_additive_expression, STATE 996),
     (sym_multiplicative_expression, STATE 996), (sym__unary_expression, STATE 787),
     (sym_unary_expression, STATE 994), (sym__postfix_expression, STATE 994),
     (sym_postfix_expression, STATE 993), (sym_prefix_operator, STATE 421),
     (sym_negation_operator, STATE 1450), (sym__exclamation_operator, STATE 1451),
     (sym_tilde_operator, STATE 1357), (sym_await_expression, STATE 991),
     (sym_new_expression, STATE 962), (sym_const_object_expression, STATE 962),
     (sym__primary, STATE 648), (sym_parenthesized_expression, STATE 962),
     (sym_constructor_invocation, STATE 643), (sym_constructor_tearoff, STATE 962),
     (sym_type_arguments, STATE 3200), (sym_switch_expression, STATE 962),
     (sym__parenthesized_pattern, STATE 3182), (sym_list_pattern, STATE 3182),
     (sym_map_pattern, STATE 3182), (sym_record_pattern, STATE 3182),
     (sym_object_pattern, STATE 3182), (sym__outer_pattern, STATE 3395),
     (sym_pattern_assignment, STATE 908), (sym_type_parameters, STATE 2932),
     (sym__type_name, STATE 2661), (sym__formal_parameter_part, STATE 2339),
     (sym_formal_parameter_list, STATE 2020), (sym__strict_formal_parameter_list, STATE 2016),
     (sym__new_builtin, STATE 2079), (sym_this, STATE 962), (sym_super, STATE 1338),
     (sym_comment, STATE 269), (sym_documentation_comment, STATE 269),
     (aux_sym_string_literal_repeat1, STATE 474), (sym_identifier, ACTIONS 494),
     (anon_sym_POUND, ACTIONS 73), (sym_decimal_integer_literal, ACTIONS 75),
     (sym_hex_integer_literal, ACTIONS 77), (sym_decimal_floating_point_literal, ACTIONS 75),
     (anon_sym_true, ACTIONS 79), (anon_sym_false, ACTIONS 81), (anon_sym_DQUOTE, ACTIONS 83),
     (anon_sym_SQUOTE, ACTIONS 85), (anon_sym_DQUOTE_DQUOTE_DQUOTE, ACTIONS 87),
     (anon_sym_SQUOTE_SQUOTE_SQUOTE, ACTIONS 89), (anon_sym_r_DQUOTE, ACTIONS 91),
     (anon_sym_r_SQUOTE, ACTIONS 93), (anon_sym_r_DQUOTE_DQUOTE_DQUOTE, ACTIONS 95),
     (anon_sym_r_SQUOTE_SQUOTE_SQUOTE, ACTIONS 97), (anon_sym_LBRACE, ACTIONS 442),
     (anon_sym_LBRACK, ACTIONS 103), (anon_sym_null, ACTIONS 105),
     (anon_sym_LPAREN, ACTIONS 498), (anon_sym_throw, ACTIONS 748), (anon_sym_LT, ACTIONS 111),
     (sym_increment_operator, ACTIONS 688), (sym_minus_operator, ACTIONS 690),
     (anon_sym_BANG, ACTIONS 119), (anon_sym_TILDE, ACTIONS 121), (anon_sym_await, ACTIONS 692),
     (anon_sym_switch, ACTIONS 412), (sym_rethrow_builtin, ACTIONS 151),
     (anon_sym_new, ACTIONS 155), (sym_const_builtin, ACTIONS 478), (anon_sym_this, ACTIONS 159),
     (anon_sym_super, ACTIONS 161), (anon_sym_SLASH_SLASH, ACTIONS 3),
     (anon_sym_SLASH_STAR, ACTIONS 5), (anon_sym_SLASH_SLASH_SLASH, ACTIONS 7),
     (sym__block_comment, ACTIONS 9), (sym__documentation_block_comment, ACTIONS 11)]"

lemma row_ok_269: "table_row_ok 269 ts_parse_table_269"
  by (simp add: row_simps ts_parse_table_269_def)

definition ts_parse_table_270 :: table_row where
  "ts_parse_table_270 = [
     (sym__bool_literal, STATE 989), (sym__numeric_literal, STATE 989),
     (sym__literal, STATE 962), (sym_symbol_literal, STATE 989), (sym_true, STATE 900),
     (sym_false, STATE 900), (sym_string_literal, STATE 989),
     (sym__string_literal_double_quotes, STATE 627),
     (sym__string_literal_single_quotes, STATE 627),
     (sym__string_literal_double_quotes_multiple, STATE 627),
     (sym__string_literal_single_quotes_multiple, STATE 627),
     (sym__raw_string_literal_double_quotes, STATE 627),
     (sym__raw_string_literal_single_quotes, STATE 627),
     (sym__raw_string_literal_double_quotes_multiple, STATE 627),
     (sym__raw_string_literal_single_quotes_multiple, STATE 627), (sym_list_literal, STATE 989),
     (sym_set_or_map_literal, STATE 989), (sym_null_literal, STATE 989),
     (sym_record_literal, STATE 989), (sym__record_literal_no_const, STATE 924),
     (sym__expression, STATE 951), (sym__real_expression, STATE 481),
     (sym_throw_expression, STATE 908), (sym_rethrow_expression, STATE 908),
     (sym_assignment_expression, STATE 908), (sym_assignable_expression, STATE 1955),
     (sym_function_expression, STATE 962), (sym_if_null_expression, STATE 996),
     (sym_conditional_expression, STATE 996), (sym_logical_or_expression, STATE 996),
     (sym_logical_and_expression, STATE 996), (sym_equality_expression, STATE 996),
     (sym_type_cast_expression, STATE 996), (sym_type_test_expression, STATE 996),
     (sym_relational_expression, STATE 996), (sym_bitwise_or_expression, STATE 996),
     (sym_bitwise_xor_expression, STATE 996), (sym_bitwise_and_expression, STATE 996),
     (sym_shift_expression, STATE 996), (sym_additive_expression, STATE 996),
     (sym_multiplicative_expression, STATE 996), (sym__unary_expression, STATE 787),
     (sym_unary_expression, STATE 994), (sym__postfix_expression, STATE 994),
     (sym_postfix_expression, STATE 993), (sym_prefix_operator, STATE 421),
     (sym_negation_operator, STATE 1450), (sym__exclamation_operator, STATE 1451),
     (sym_tilde_operator, STATE 1357), (sym_await_expression, STATE 991),
     (sym_new_expression, STATE 962), (sym_const_object_expression, STATE 962),
     (sym__primary, STATE 648), (sym_parenthesized_expression, STATE 962),
     (sym_constructor_invocation, STATE 643), (sym_constructor_tearoff, STATE 962),
     (sym_type_arguments, STATE 3200), (sym_switch_expression, STATE 962),
     (sym__parenthesized_pattern, STATE 3182), (sym_list_pattern, STATE 3182),
     (sym_map_pattern, STATE 3182), (sym_record_pattern, STATE 3182),
     (sym_object_pattern, STATE 3182), (sym__outer_pattern, STATE 3395),
     (sym_pattern_assignment, STATE 908), (sym_type_parameters, STATE 2932),
     (sym__type_name, STATE 2661), (sym__formal_parameter_part, STATE 2339),
     (sym_formal_parameter_list, STATE 2020), (sym__strict_formal_parameter_list, STATE 2016),
     (sym__new_builtin, STATE 2079), (sym_this, STATE 962), (sym_super, STATE 1338),
     (sym_comment, STATE 270), (sym_documentation_comment, STATE 270),
     (aux_sym_string_literal_repeat1, STATE 474), (sym_identifier, ACTIONS 494),
     (anon_sym_POUND, ACTIONS 73), (sym_decimal_integer_literal, ACTIONS 75),
     (sym_hex_integer_literal, ACTIONS 77), (sym_decimal_floating_point_literal, ACTIONS 75),
     (anon_sym_true, ACTIONS 79), (anon_sym_false, ACTIONS 81), (anon_sym_DQUOTE, ACTIONS 83),
     (anon_sym_SQUOTE, ACTIONS 85), (anon_sym_DQUOTE_DQUOTE_DQUOTE, ACTIONS 87),
     (anon_sym_SQUOTE_SQUOTE_SQUOTE, ACTIONS 89), (anon_sym_r_DQUOTE, ACTIONS 91),
     (anon_sym_r_SQUOTE, ACTIONS 93), (anon_sym_r_DQUOTE_DQUOTE_DQUOTE, ACTIONS 95),
     (anon_sym_r_SQUOTE_SQUOTE_SQUOTE, ACTIONS 97), (anon_sym_LBRACE, ACTIONS 442),
     (anon_sym_LBRACK, ACTIONS 103), (anon_sym_null, ACTIONS 105),
     (anon_sym_LPAREN, ACTIONS 498), (anon_sym_throw, ACTIONS 748), (anon_sym_LT, ACTIONS 111),
     (sym_increment_operator, ACTIONS 688), (sym_minus_operator, ACTIONS 690),
     (anon_sym_BANG, ACTIONS 119), (anon_sym_TILDE, ACTIONS 121), (anon_sym_await, ACTIONS 692),
     (anon_sym_switch, ACTIONS 412), (sym_rethrow_builtin, ACTIONS 151),
     (anon_sym_new, ACTIONS 155), (sym_const_builtin, ACTIONS 478), (anon_sym_this, ACTIONS 159),
     (anon_sym_super, ACTIONS 161), (anon_sym_SLASH_SLASH, ACTIONS 3),
     (anon_sym_SLASH_STAR, ACTIONS 5), (anon_sym_SLASH_SLASH_SLASH, ACTIONS 7),
     (sym__block_comment, ACTIONS 9), (sym__documentation_block_comment, ACTIONS 11)]"

lemma row_ok_270: "table_row_ok 270 ts_parse_table_270"
  by (simp add: row_simps ts_parse_table_270_def)

definition ts_parse_table_271 :: table_row where
  "ts_parse_table_271 = [
     (sym__bool_literal, STATE 989), (sym__numeric_literal, STATE 989),
     (sym__literal, STATE 962), (sym_symbol_literal, STATE 989), (sym_true, STATE 900),
     (sym_false, STATE 900), (sym_string_literal, STATE 989),
     (sym__string_literal_double_quotes, STATE 627),
     (sym__string_literal_single_quotes, STATE 627),
     (sym__string_literal_double_quotes_multiple, STATE 627),
     (sym__string_literal_single_quotes_multiple, STATE 627),
     (sym__raw_string_literal_double_quotes, STATE 627),
     (sym__raw_string_literal_single_quotes, STATE 627),
     (sym__raw_string_literal_double_quotes_multiple, STATE 627),
     (sym__raw_string_literal_single_quotes_multiple, STATE 627), (sym_list_literal, STATE 989),
     (sym_set_or_map_literal, STATE 989), (sym_null_literal, STATE 989),
     (sym_record_literal, STATE 989), (sym__record_literal_no_const, STATE 924),
     (sym__expression, STATE 1262), (sym__real_expression, STATE 510),
     (sym_throw_expression, STATE 1267), (sym_rethrow_expression, STATE 1267),
     (sym_assignment_expression, STATE 1267), (sym_assignable_expression, STATE 1956),
     (sym_function_expression, STATE 962), (sym_if_null_expression, STATE 996),
     (sym_conditional_expression, STATE 996), (sym_logical_or_expression, STATE 996),
     (sym_logical_and_expression, STATE 996), (sym_equality_expression, STATE 996),
     (sym_type_cast_expression, STATE 996), (sym_type_test_expression, STATE 996),
     (sym_relational_expression, STATE 996), (sym_bitwise_or_expression, STATE 996),
     (sym_bitwise_xor_expression, STATE 996), (sym_bitwise_and_expression, STATE 996),
     (sym_shift_expression, STATE 996), (sym_additive_expression, STATE 996),
     (sym_multiplicative_expression, STATE 996), (sym__unary_expression, STATE 787),
     (sym_unary_expression, STATE 994), (sym__postfix_expression, STATE 994),
     (sym_postfix_expression, STATE 993), (sym_prefix_operator, STATE 421),
     (sym_negation_operator, STATE 1450), (sym__exclamation_operator, STATE 1451),
     (sym_tilde_operator, STATE 1357), (sym_await_expression, STATE 991),
     (sym_new_expression, STATE 962), (sym_const_object_expression, STATE 962),
     (sym__primary, STATE 648), (sym_parenthesized_expression, STATE 962),
     (sym_constructor_invocation, STATE 643), (sym_constructor_tearoff, STATE 962),
     (sym_type_arguments, STATE 3200), (sym_switch_expression, STATE 962),
     (sym__parenthesized_pattern, STATE 3182), (sym_list_pattern, STATE 3182),
     (sym_map_pattern, STATE 3182), (sym_record_pattern, STATE 3182),
     (sym_object_pattern, STATE 3182), (sym__outer_pattern, STATE 3409),
     (sym_pattern_assignment, STATE 1267), (sym_type_parameters, STATE 2932),
     (sym__type_name, STATE 2661), (sym__formal_parameter_part, STATE 2339),
     (sym_formal_parameter_list, STATE 2020), (sym__strict_formal_parameter_list, STATE 2016),
     (sym__new_builtin, STATE 2079), (sym_this, STATE 962), (sym_super, STATE 1338),
     (sym_comment, STATE 271), (sym_documentation_comment, STATE 271),
     (aux_sym_string_literal_repeat1, STATE 474), (sym_identifier, ACTIONS 494),
     (anon_sym_POUND, ACTIONS 73), (sym_decimal_integer_literal, ACTIONS 75),
     (sym_hex_integer_literal, ACTIONS 77), (sym_decimal_floating_point_literal, ACTIONS 75),
     (anon_sym_true, ACTIONS 79), (anon_sym_false, ACTIONS 81), (anon_sym_DQUOTE, ACTIONS 83),
     (anon_sym_SQUOTE, ACTIONS 85), (anon_sym_DQUOTE_DQUOTE_DQUOTE, ACTIONS 87),
     (anon_sym_SQUOTE_SQUOTE_SQUOTE, ACTIONS 89), (anon_sym_r_DQUOTE, ACTIONS 91),
     (anon_sym_r_SQUOTE, ACTIONS 93), (anon_sym_r_DQUOTE_DQUOTE_DQUOTE, ACTIONS 95),
     (anon_sym_r_SQUOTE_SQUOTE_SQUOTE, ACTIONS 97), (anon_sym_LBRACE, ACTIONS 442),
     (anon_sym_LBRACK, ACTIONS 103), (anon_sym_null, ACTIONS 105),
     (anon_sym_LPAREN, ACTIONS 498), (anon_sym_throw, ACTIONS 686), (anon_sym_LT, ACTIONS 111),
     (sym_increment_operator, ACTIONS 688), (sym_minus_operator, ACTIONS 690),
     (anon_sym_BANG, ACTIONS 119), (anon_sym_TILDE, ACTIONS 121), (anon_sym_await, ACTIONS 692),
     (anon_sym_switch, ACTIONS 412), (sym_rethrow_builtin, ACTIONS 694),
     (anon_sym_new, ACTIONS 155), (sym_const_builtin, ACTIONS 478), (anon_sym_this, ACTIONS 159),
     (anon_sym_super, ACTIONS 161), (anon_sym_SLASH_SLASH, ACTIONS 3),
     (anon_sym_SLASH_STAR, ACTIONS 5), (anon_sym_SLASH_SLASH_SLASH, ACTIONS 7),
     (sym__block_comment, ACTIONS 9), (sym__documentation_block_comment, ACTIONS 11)]"

lemma row_ok_271: "table_row_ok 271 ts_parse_table_271"
  by (simp add: row_simps ts_parse_table_271_def)

definition ts_parse_table_272 :: table_row where
  "ts_parse_table_272 = [
     (sym__bool_literal, STATE 989), (sym__numeric_literal, STATE 989),
     (sym__literal, STATE 962), (sym_symbol_literal, STATE 989), (sym_true, STATE 900),
     (sym_false, STATE 900), (sym_string_literal, STATE 989),
     (sym__string_literal_double_quotes, STATE 627),
     (sym__string_literal_single_quotes, STATE 627),
     (sym__string_literal_double_quotes_multiple, STATE 627),
     (sym__string_literal_single_quotes_multiple, STATE 627),
     (sym__raw_string_literal_double_quotes, STATE 627),
     (sym__raw_string_literal_single_quotes, STATE 627),
     (sym__raw_string_literal_double_quotes_multiple, STATE 627),
     (sym__raw_string_literal_single_quotes_multiple, STATE 627), (sym_list_literal, STATE 989),
     (sym_set_or_map_literal, STATE 989), (sym_null_literal, STATE 989),
     (sym_record_literal, STATE 989), (sym__record_literal_no_const, STATE 924),
     (sym__expression, STATE 3029), (sym__real_expression, STATE 660),
     (sym_throw_expression, STATE 908), (sym_rethrow_expression, STATE 908),
     (sym_assignment_expression, STATE 908), (sym_assignable_expression, STATE 1940),
     (sym_function_expression, STATE 962), (sym_if_null_expression, STATE 1477),
     (sym_conditional_expression, STATE 1477), (sym_logical_or_expression, STATE 1477),
     (sym_logical_and_expression, STATE 1477), (sym_equality_expression, STATE 1477),
     (sym_type_cast_expression, STATE 1477), (sym_type_test_expression, STATE 1477),
     (sym_relational_expression, STATE 1477), (sym_bitwise_or_expression, STATE 1477),
     (sym_bitwise_xor_expression, STATE 1477), (sym_bitwise_and_expression, STATE 1477),
     (sym_shift_expression, STATE 1477), (sym_additive_expression, STATE 1477),
     (sym_multiplicative_expression, STATE 1477), (sym__unary_expression, STATE 1121),
     (sym_unary_expression, STATE 1303), (sym__postfix_expression, STATE 1303),
     (sym_postfix_expression, STATE 1301), (sym_prefix_operator, STATE 431),
     (sym_negation_operator, STATE 1450), (sym__exclamation_operator, STATE 1451),
     (sym_tilde_operator, STATE 1385), (sym_await_expression, STATE 1302),
     (sym_new_expression, STATE 962), (sym_const_object_expression, STATE 962),
     (sym__primary, STATE 668), (sym_parenthesized_expression, STATE 962),
     (sym_constructor_invocation, STATE 643), (sym_constructor_tearoff, STATE 962),
     (sym_type_arguments, STATE 3200), (sym_switch_expression, STATE 962),
     (sym__parenthesized_pattern, STATE 3182), (sym_list_pattern, STATE 3182),
     (sym_map_pattern, STATE 3182), (sym_record_pattern, STATE 3182),
     (sym_object_pattern, STATE 3182), (sym__outer_pattern, STATE 3410),
     (sym_pattern_assignment, STATE 908), (sym_type_parameters, STATE 2932),
     (sym__type_name, STATE 2661), (sym__formal_parameter_part, STATE 2339),
     (sym_formal_parameter_list, STATE 2020), (sym__strict_formal_parameter_list, STATE 2016),
     (sym__new_builtin, STATE 2079), (sym_this, STATE 962), (sym_super, STATE 1337),
     (sym_comment, STATE 272), (sym_documentation_comment, STATE 272),
     (aux_sym_string_literal_repeat1, STATE 474), (sym_identifier, ACTIONS 494),
     (anon_sym_POUND, ACTIONS 73), (sym_decimal_integer_literal, ACTIONS 75),
     (sym_hex_integer_literal, ACTIONS 77), (sym_decimal_floating_point_literal, ACTIONS 75),
     (anon_sym_true, ACTIONS 79), (anon_sym_false, ACTIONS 81), (anon_sym_DQUOTE, ACTIONS 83),
     (anon_sym_SQUOTE, ACTIONS 85), (anon_sym_DQUOTE_DQUOTE_DQUOTE, ACTIONS 87),
     (anon_sym_SQUOTE_SQUOTE_SQUOTE, ACTIONS 89), (anon_sym_r_DQUOTE, ACTIONS 91),
     (anon_sym_r_SQUOTE, ACTIONS 93), (anon_sym_r_DQUOTE_DQUOTE_DQUOTE, ACTIONS 95),
     (anon_sym_r_SQUOTE_SQUOTE_SQUOTE, ACTIONS 97), (anon_sym_LBRACE, ACTIONS 442),
     (anon_sym_LBRACK, ACTIONS 103), (anon_sym_null, ACTIONS 105),
     (anon_sym_LPAREN, ACTIONS 498), (anon_sym_throw, ACTIONS 109), (anon_sym_LT, ACTIONS 111),
     (sym_increment_operator, ACTIONS 113), (sym_minus_operator, ACTIONS 117),
     (anon_sym_BANG, ACTIONS 119), (anon_sym_TILDE, ACTIONS 121), (anon_sym_await, ACTIONS 432),
     (anon_sym_switch, ACTIONS 412), (sym_rethrow_builtin, ACTIONS 151),
     (anon_sym_new, ACTIONS 155), (sym_const_builtin, ACTIONS 478), (anon_sym_this, ACTIONS 159),
     (anon_sym_super, ACTIONS 161), (anon_sym_SLASH_SLASH, ACTIONS 3),
     (anon_sym_SLASH_STAR, ACTIONS 5), (anon_sym_SLASH_SLASH_SLASH, ACTIONS 7),
     (sym__block_comment, ACTIONS 9), (sym__documentation_block_comment, ACTIONS 11)]"

lemma row_ok_272: "table_row_ok 272 ts_parse_table_272"
  by (simp add: row_simps ts_parse_table_272_def)

definition ts_parse_table_273 :: table_row where
  "ts_parse_table_273 = [
     (sym__bool_literal, STATE 1115), (sym__numeric_literal, STATE 1115),
     (sym__literal, STATE 1135), (sym_symbol_literal, STATE 1115), (sym_true, STATE 1165),
     (sym_false, STATE 1165), (sym_string_literal, STATE 1115),
     (sym__string_literal_double_quotes, STATE 729),
     (sym__string_literal_single_quotes, STATE 729),
     (sym__string_literal_double_quotes_multiple, STATE 729),
     (sym__string_literal_single_quotes_multiple, STATE 729),
     (sym__raw_string_literal_double_quotes, STATE 729),
     (sym__raw_string_literal_single_quotes, STATE 729),
     (sym__raw_string_literal_double_quotes_multiple, STATE 729),
     (sym__raw_string_literal_single_quotes_multiple, STATE 729), (sym_list_literal, STATE 1115),
     (sym_set_or_map_literal, STATE 1115), (sym_null_literal, STATE 1115),
     (sym_record_literal, STATE 1115), (sym__record_literal_no_const, STATE 1187),
     (sym__expression, STATE 1087), (sym__real_expression, STATE 508),
     (sym_throw_expression, STATE 1186), (sym_rethrow_expression, STATE 1186),
     (sym_assignment_expression, STATE 1186), (sym_assignable_expression, STATE 1932),
     (sym_function_expression, STATE 1135), (sym_if_null_expression, STATE 1117),
     (sym_conditional_expression, STATE 1117), (sym_logical_or_expression, STATE 1117),
     (sym_logical_and_expression, STATE 1117), (sym_equality_expression, STATE 1117),
     (sym_type_cast_expression, STATE 1117), (sym_type_test_expression, STATE 1117),
     (sym_relational_expression, STATE 1117), (sym_bitwise_or_expression, STATE 1117),
     (sym_bitwise_xor_expression, STATE 1117), (sym_bitwise_and_expression, STATE 1117),
     (sym_shift_expression, STATE 1117), (sym_additive_expression, STATE 1117),
     (sym_multiplicative_expression, STATE 1117), (sym__unary_expression, STATE 902),
     (sym_unary_expression, STATE 1114), (sym__postfix_expression, STATE 1114),
     (sym_postfix_expression, STATE 1098), (sym_prefix_operator, STATE 417),
     (sym_negation_operator, STATE 1450), (sym__exclamation_operator, STATE 1451),
     (sym_tilde_operator, STATE 1359), (sym_await_expression, STATE 1093),
     (sym_new_expression, STATE 1135), (sym_const_object_expression, STATE 1135),
     (sym__primary, STATE 690), (sym_parenthesized_expression, STATE 1135),
     (sym_constructor_invocation, STATE 699), (sym_constructor_tearoff, STATE 1135),
     (sym_type_arguments, STATE 3109), (sym_switch_expression, STATE 1135),
     (sym__parenthesized_pattern, STATE 3182), (sym_list_pattern, STATE 3182),
     (sym_map_pattern, STATE 3182), (sym_record_pattern, STATE 3182),
     (sym_object_pattern, STATE 3182), (sym__outer_pattern, STATE 3287),
     (sym_pattern_assignment, STATE 1186), (sym_type_parameters, STATE 2932),
     (sym__type_name, STATE 2663), (sym__formal_parameter_part, STATE 2358),
     (sym_formal_parameter_list, STATE 2020), (sym__strict_formal_parameter_list, STATE 2016),
     (sym__new_builtin, STATE 2074), (sym_this, STATE 1135), (sym_super, STATE 1344),
     (sym_comment, STATE 273), (sym_documentation_comment, STATE 273),
     (aux_sym_string_literal_repeat1, STATE 595), (sym_identifier, ACTIONS 696),
     (anon_sym_POUND, ACTIONS 698), (sym_decimal_integer_literal, ACTIONS 700),
     (sym_hex_integer_literal, ACTIONS 702), (sym_decimal_floating_point_literal, ACTIONS 700),
     (anon_sym_true, ACTIONS 704), (anon_sym_false, ACTIONS 706), (anon_sym_DQUOTE, ACTIONS 708),
     (anon_sym_SQUOTE, ACTIONS 710), (anon_sym_DQUOTE_DQUOTE_DQUOTE, ACTIONS 712),
     (anon_sym_SQUOTE_SQUOTE_SQUOTE, ACTIONS 714), (anon_sym_r_DQUOTE, ACTIONS 716),
     (anon_sym_r_SQUOTE, ACTIONS 718), (anon_sym_r_DQUOTE_DQUOTE_DQUOTE, ACTIONS 720),
     (anon_sym_r_SQUOTE_SQUOTE_SQUOTE, ACTIONS 722), (anon_sym_LBRACE, ACTIONS 724),
     (anon_sym_LBRACK, ACTIONS 726), (anon_sym_null, ACTIONS 728),
     (anon_sym_LPAREN, ACTIONS 730), (anon_sym_throw, ACTIONS 732), (anon_sym_LT, ACTIONS 111),
     (sym_increment_operator, ACTIONS 734), (sym_minus_operator, ACTIONS 736),
     (anon_sym_BANG, ACTIONS 119), (anon_sym_TILDE, ACTIONS 121), (anon_sym_await, ACTIONS 738),
     (anon_sym_switch, ACTIONS 740), (sym_rethrow_builtin, ACTIONS 742),
     (anon_sym_new, ACTIONS 155), (sym_const_builtin, ACTIONS 744), (anon_sym_this, ACTIONS 746),
     (anon_sym_super, ACTIONS 161), (anon_sym_SLASH_SLASH, ACTIONS 3),
     (anon_sym_SLASH_STAR, ACTIONS 5), (anon_sym_SLASH_SLASH_SLASH, ACTIONS 7),
     (sym__block_comment, ACTIONS 9), (sym__documentation_block_comment, ACTIONS 11)]"

lemma row_ok_273: "table_row_ok 273 ts_parse_table_273"
  by (simp add: row_simps ts_parse_table_273_def)

definition ts_parse_table_274 :: table_row where
  "ts_parse_table_274 = [
     (sym__bool_literal, STATE 1115), (sym__numeric_literal, STATE 1115),
     (sym__literal, STATE 1135), (sym_symbol_literal, STATE 1115), (sym_true, STATE 1165),
     (sym_false, STATE 1165), (sym_string_literal, STATE 1115),
     (sym__string_literal_double_quotes, STATE 729),
     (sym__string_literal_single_quotes, STATE 729),
     (sym__string_literal_double_quotes_multiple, STATE 729),
     (sym__string_literal_single_quotes_multiple, STATE 729),
     (sym__raw_string_literal_double_quotes, STATE 729),
     (sym__raw_string_literal_single_quotes, STATE 729),
     (sym__raw_string_literal_double_quotes_multiple, STATE 729),
     (sym__raw_string_literal_single_quotes_multiple, STATE 729), (sym_list_literal, STATE 1115),
     (sym_set_or_map_literal, STATE 1115), (sym_null_literal, STATE 1115),
     (sym_record_literal, STATE 1115), (sym__record_literal_no_const, STATE 1187),
     (sym__expression_without_cascade, STATE 1106), (sym__real_expression, STATE 554),
     (sym_throw_expression_without_cascade, STATE 1159),
     (sym_assignment_expression_without_cascade, STATE 1159),
     (sym_assignable_expression, STATE 1960), (sym_function_expression, STATE 1135),
     (sym_if_null_expression, STATE 1117), (sym_conditional_expression, STATE 1117),
     (sym_logical_or_expression, STATE 1117), (sym_logical_and_expression, STATE 1117),
     (sym_equality_expression, STATE 1117), (sym_type_cast_expression, STATE 1117),
     (sym_type_test_expression, STATE 1117), (sym_relational_expression, STATE 1117),
     (sym_bitwise_or_expression, STATE 1117), (sym_bitwise_xor_expression, STATE 1117),
     (sym_bitwise_and_expression, STATE 1117), (sym_shift_expression, STATE 1117),
     (sym_additive_expression, STATE 1117), (sym_multiplicative_expression, STATE 1117),
     (sym__unary_expression, STATE 902), (sym_unary_expression, STATE 1114),
     (sym__postfix_expression, STATE 1114), (sym_postfix_expression, STATE 1098),
     (sym_prefix_operator, STATE 417), (sym_negation_operator, STATE 1450),
     (sym__exclamation_operator, STATE 1451), (sym_tilde_operator, STATE 1359),
     (sym_await_expression, STATE 1093), (sym_new_expression, STATE 1135),
     (sym_const_object_expression, STATE 1135), (sym__primary, STATE 690),
     (sym_parenthesized_expression, STATE 1135), (sym_constructor_invocation, STATE 699),
     (sym_constructor_tearoff, STATE 1135), (sym_type_arguments, STATE 3081),
     (sym_switch_expression, STATE 1135), (sym_type_parameters, STATE 2932),
     (sym__type_name, STATE 2826), (sym__formal_parameter_part, STATE 2358),
     (sym_formal_parameter_list, STATE 2020), (sym__strict_formal_parameter_list, STATE 2016),
     (sym__new_builtin, STATE 2074), (sym_this, STATE 1135), (sym_super, STATE 1344),
     (sym_comment, STATE 274), (sym_documentation_comment, STATE 274),
     (aux_sym_string_literal_repeat1, STATE 595), (sym_identifier, ACTIONS 754),
     (anon_sym_POUND, ACTIONS 698), (sym_decimal_integer_literal, ACTIONS 700),
     (sym_hex_integer_literal, ACTIONS 702), (sym_decimal_floating_point_literal, ACTIONS 700),
     (anon_sym_true, ACTIONS 704), (anon_sym_false, ACTIONS 706), (anon_sym_DQUOTE, ACTIONS 708),
     (anon_sym_SQUOTE, ACTIONS 710), (anon_sym_DQUOTE_DQUOTE_DQUOTE, ACTIONS 712),
     (anon_sym_SQUOTE_SQUOTE_SQUOTE, ACTIONS 714), (anon_sym_r_DQUOTE, ACTIONS 716),
     (anon_sym_r_SQUOTE, ACTIONS 718), (anon_sym_r_DQUOTE_DQUOTE_DQUOTE, ACTIONS 720),
     (anon_sym_r_SQUOTE_SQUOTE_SQUOTE, ACTIONS 722), (anon_sym_LBRACE, ACTIONS 756),
     (anon_sym_LBRACK, ACTIONS 758), (anon_sym_null, ACTIONS 728),
     (anon_sym_LPAREN, ACTIONS 760), (anon_sym_throw, ACTIONS 762), (anon_sym_LT, ACTIONS 111),
     (sym_increment_operator, ACTIONS 734), (sym_minus_operator, ACTIONS 736),
     (anon_sym_BANG, ACTIONS 119), (anon_sym_TILDE, ACTIONS 121), (anon_sym_await, ACTIONS 738),
     (anon_sym_switch, ACTIONS 740), (anon_sym_new, ACTIONS 155),
     (sym_const_builtin, ACTIONS 744), (anon_sym_this, ACTIONS 746),
     (anon_sym_super, ACTIONS 161), (anon_sym_SLASH_SLASH, ACTIONS 3),
     (anon_sym_SLASH_STAR, ACTIONS 5), (anon_sym_SLASH_SLASH_SLASH, ACTIONS 7),
     (sym__block_comment, ACTIONS 9), (sym__documentation_block_comment, ACTIONS 11)]"

lemma row_ok_274: "table_row_ok 274 ts_parse_table_274"
  by (simp add: row_simps ts_parse_table_274_def)

definition ts_parse_table_275 :: table_row where
  "ts_parse_table_275 = [
     (sym__bool_literal, STATE 989), (sym__numeric_literal, STATE 989),
     (sym__literal, STATE 962), (sym_symbol_literal, STATE 989), (sym_true, STATE 900),
     (sym_false, STATE 900), (sym_string_literal, STATE 989),
     (sym__string_literal_double_quotes, STATE 627),
     (sym__string_literal_single_quotes, STATE 627),
     (sym__string_literal_double_quotes_multiple, STATE 627),
     (sym__string_literal_single_quotes_multiple, STATE 627),
     (sym__raw_string_literal_double_quotes, STATE 627),
     (sym__raw_string_literal_single_quotes, STATE 627),
     (sym__raw_string_literal_double_quotes_multiple, STATE 627),
     (sym__raw_string_literal_single_quotes_multiple, STATE 627), (sym_list_literal, STATE 989),
     (sym_set_or_map_literal, STATE 989), (sym_null_literal, STATE 989),
     (sym_record_literal, STATE 989), (sym__record_literal_no_const, STATE 924),
     (sym__expression_without_cascade, STATE 1966), (sym__real_expression, STATE 757),
     (sym_throw_expression_without_cascade, STATE 1964),
     (sym_assignment_expression_without_cascade, STATE 1964),
     (sym_assignable_expression, STATE 1938), (sym_function_expression, STATE 962),
     (sym_if_null_expression, STATE 996), (sym_conditional_expression, STATE 996),
     (sym_logical_or_expression, STATE 996), (sym_logical_and_expression, STATE 996),
     (sym_equality_expression, STATE 996), (sym_type_cast_expression, STATE 996),
     (sym_type_test_expression, STATE 996), (sym_relational_expression, STATE 996),
     (sym_bitwise_or_expression, STATE 996), (sym_bitwise_xor_expression, STATE 996),
     (sym_bitwise_and_expression, STATE 996), (sym_shift_expression, STATE 996),
     (sym_additive_expression, STATE 996), (sym_multiplicative_expression, STATE 996),
     (sym__unary_expression, STATE 1323), (sym_unary_expression, STATE 994),
     (sym__postfix_expression, STATE 994), (sym_postfix_expression, STATE 993),
     (sym_prefix_operator, STATE 421), (sym_negation_operator, STATE 1450),
     (sym__exclamation_operator, STATE 1451), (sym_tilde_operator, STATE 1357),
     (sym_await_expression, STATE 991), (sym_new_expression, STATE 962),
     (sym_const_object_expression, STATE 962), (sym__primary, STATE 648),
     (sym_parenthesized_expression, STATE 962), (sym_constructor_invocation, STATE 643),
     (sym_constructor_tearoff, STATE 962), (sym_type_arguments, STATE 3146),
     (sym_switch_expression, STATE 962), (sym_type_parameters, STATE 2932),
     (sym__type_name, STATE 2859), (sym__formal_parameter_part, STATE 2339),
     (sym_formal_parameter_list, STATE 2020), (sym__strict_formal_parameter_list, STATE 2016),
     (sym__new_builtin, STATE 2079), (sym_this, STATE 962), (sym_super, STATE 1339),
     (sym_comment, STATE 275), (sym_documentation_comment, STATE 275),
     (aux_sym_string_literal_repeat1, STATE 474), (sym_identifier, ACTIONS 764),
     (anon_sym_POUND, ACTIONS 73), (sym_decimal_integer_literal, ACTIONS 75),
     (sym_hex_integer_literal, ACTIONS 77), (sym_decimal_floating_point_literal, ACTIONS 75),
     (anon_sym_true, ACTIONS 79), (anon_sym_false, ACTIONS 81), (anon_sym_DQUOTE, ACTIONS 83),
     (anon_sym_SQUOTE, ACTIONS 85), (anon_sym_DQUOTE_DQUOTE_DQUOTE, ACTIONS 87),
     (anon_sym_SQUOTE_SQUOTE_SQUOTE, ACTIONS 89), (anon_sym_r_DQUOTE, ACTIONS 91),
     (anon_sym_r_SQUOTE, ACTIONS 93), (anon_sym_r_DQUOTE_DQUOTE_DQUOTE, ACTIONS 95),
     (anon_sym_r_SQUOTE_SQUOTE_SQUOTE, ACTIONS 97), (anon_sym_LBRACE, ACTIONS 766),
     (anon_sym_LBRACK, ACTIONS 768), (anon_sym_null, ACTIONS 105),
     (anon_sym_LPAREN, ACTIONS 770), (anon_sym_throw, ACTIONS 772), (anon_sym_LT, ACTIONS 111),
     (sym_increment_operator, ACTIONS 688), (sym_minus_operator, ACTIONS 690),
     (anon_sym_BANG, ACTIONS 119), (anon_sym_TILDE, ACTIONS 121), (anon_sym_await, ACTIONS 692),
     (anon_sym_switch, ACTIONS 412), (anon_sym_new, ACTIONS 155),
     (sym_const_builtin, ACTIONS 478), (anon_sym_this, ACTIONS 159),
     (anon_sym_super, ACTIONS 161), (anon_sym_SLASH_SLASH, ACTIONS 3),
     (anon_sym_SLASH_STAR, ACTIONS 5), (anon_sym_SLASH_SLASH_SLASH, ACTIONS 7),
     (sym__block_comment, ACTIONS 9), (sym__documentation_block_comment, ACTIONS 11)]"

lemma row_ok_275: "table_row_ok 275 ts_parse_table_275"
  by (simp add: row_simps ts_parse_table_275_def)

definition ts_parse_table_276 :: table_row where
  "ts_parse_table_276 = [
     (sym__bool_literal, STATE 1279), (sym__numeric_literal, STATE 1279),
     (sym__literal, STATE 1278), (sym_symbol_literal, STATE 1279), (sym_true, STATE 1275),
     (sym_false, STATE 1275), (sym_string_literal, STATE 1279),
     (sym__string_literal_double_quotes, STATE 799),
     (sym__string_literal_single_quotes, STATE 799),
     (sym__string_literal_double_quotes_multiple, STATE 799),
     (sym__string_literal_single_quotes_multiple, STATE 799),
     (sym__raw_string_literal_double_quotes, STATE 799),
     (sym__raw_string_literal_single_quotes, STATE 799),
     (sym__raw_string_literal_double_quotes_multiple, STATE 799),
     (sym__raw_string_literal_single_quotes_multiple, STATE 799), (sym_list_literal, STATE 1279),
     (sym_set_or_map_literal, STATE 1279), (sym_null_literal, STATE 1279),
     (sym_record_literal, STATE 1279), (sym__record_literal_no_const, STATE 1268),
     (sym__expression_without_cascade, STATE 3349), (sym__real_expression, STATE 754),
     (sym_throw_expression_without_cascade, STATE 1497),
     (sym_assignment_expression_without_cascade, STATE 1497),
     (sym_assignable_expression, STATE 1931), (sym_function_expression, STATE 1278),
     (sym_if_null_expression, STATE 1679), (sym_conditional_expression, STATE 1679),
     (sym_logical_or_expression, STATE 1679), (sym_logical_and_expression, STATE 1679),
     (sym_equality_expression, STATE 1679), (sym_type_cast_expression, STATE 1679),
     (sym_type_test_expression, STATE 1679), (sym_relational_expression, STATE 1679),
     (sym_bitwise_or_expression, STATE 1679), (sym_bitwise_xor_expression, STATE 1679),
     (sym_bitwise_and_expression, STATE 1679), (sym_shift_expression, STATE 1679),
     (sym_additive_expression, STATE 1679), (sym_multiplicative_expression, STATE 1679),
     (sym__unary_expression, STATE 1329), (sym_unary_expression, STATE 1480),
     (sym__postfix_expression, STATE 1480), (sym_postfix_expression, STATE 1481),
     (sym_prefix_operator, STATE 428), (sym_negation_operator, STATE 1450),
     (sym__exclamation_operator, STATE 1451), (sym_tilde_operator, STATE 1387),
     (sym_await_expression, STATE 1483), (sym_new_expression, STATE 1278),
     (sym_const_object_expression, STATE 1278), (sym__primary, STATE 716),
     (sym_parenthesized_expression, STATE 1278), (sym_constructor_invocation, STATE 717),
     (sym_constructor_tearoff, STATE 1278), (sym_type_arguments, STATE 3100),
     (sym_switch_expression, STATE 1278), (sym_type_parameters, STATE 2932),
     (sym__type_name, STATE 2949), (sym__formal_parameter_part, STATE 2342),
     (sym_formal_parameter_list, STATE 2020), (sym__strict_formal_parameter_list, STATE 2016),
     (sym__new_builtin, STATE 2091), (sym_this, STATE 1278), (sym_super, STATE 1335),
     (sym_comment, STATE 276), (sym_documentation_comment, STATE 276),
     (aux_sym_string_literal_repeat1, STATE 609), (sym_identifier, ACTIONS 774),
     (anon_sym_POUND, ACTIONS 776), (sym_decimal_integer_literal, ACTIONS 778),
     (sym_hex_integer_literal, ACTIONS 780), (sym_decimal_floating_point_literal, ACTIONS 778),
     (anon_sym_true, ACTIONS 782), (anon_sym_false, ACTIONS 784), (anon_sym_DQUOTE, ACTIONS 786),
     (anon_sym_SQUOTE, ACTIONS 788), (anon_sym_DQUOTE_DQUOTE_DQUOTE, ACTIONS 790),
     (anon_sym_SQUOTE_SQUOTE_SQUOTE, ACTIONS 792), (anon_sym_r_DQUOTE, ACTIONS 794),
     (anon_sym_r_SQUOTE, ACTIONS 796), (anon_sym_r_DQUOTE_DQUOTE_DQUOTE, ACTIONS 798),
     (anon_sym_r_SQUOTE_SQUOTE_SQUOTE, ACTIONS 800), (anon_sym_LBRACE, ACTIONS 802),
     (anon_sym_LBRACK, ACTIONS 804), (anon_sym_null, ACTIONS 806),
     (anon_sym_LPAREN, ACTIONS 808), (anon_sym_throw, ACTIONS 810), (anon_sym_LT, ACTIONS 111),
     (sym_increment_operator, ACTIONS 812), (sym_minus_operator, ACTIONS 814),
     (anon_sym_BANG, ACTIONS 119), (anon_sym_TILDE, ACTIONS 121), (anon_sym_await, ACTIONS 816),
     (anon_sym_switch, ACTIONS 818), (anon_sym_new, ACTIONS 155),
     (sym_const_builtin, ACTIONS 820), (anon_sym_this, ACTIONS 822),
     (anon_sym_super, ACTIONS 161), (anon_sym_SLASH_SLASH, ACTIONS 3),
     (anon_sym_SLASH_STAR, ACTIONS 5), (anon_sym_SLASH_SLASH_SLASH, ACTIONS 7),
     (sym__block_comment, ACTIONS 9), (sym__documentation_block_comment, ACTIONS 11)]"

lemma row_ok_276: "table_row_ok 276 ts_parse_table_276"
  by (simp add: row_simps ts_parse_table_276_def)

definition ts_parse_table_277 :: table_row where
  "ts_parse_table_277 = [
     (sym__bool_literal, STATE 1279), (sym__numeric_literal, STATE 1279),
     (sym__literal, STATE 1278), (sym_symbol_literal, STATE 1279), (sym_true, STATE 1275),
     (sym_false, STATE 1275), (sym_string_literal, STATE 1279),
     (sym__string_literal_double_quotes, STATE 799),
     (sym__string_literal_single_quotes, STATE 799),
     (sym__string_literal_double_quotes_multiple, STATE 799),
     (sym__string_literal_single_quotes_multiple, STATE 799),
     (sym__raw_string_literal_double_quotes, STATE 799),
     (sym__raw_string_literal_single_quotes, STATE 799),
     (sym__raw_string_literal_double_quotes_multiple, STATE 799),
     (sym__raw_string_literal_single_quotes_multiple, STATE 799), (sym_list_literal, STATE 1279),
     (sym_set_or_map_literal, STATE 1279), (sym_null_literal, STATE 1279),
     (sym_record_literal, STATE 1279), (sym__record_literal_no_const, STATE 1268),
     (sym__expression_without_cascade, STATE 1675), (sym__real_expression, STATE 754),
     (sym_throw_expression_without_cascade, STATE 1710),
     (sym_assignment_expression_without_cascade, STATE 1710),
     (sym_assignable_expression, STATE 1951), (sym_function_expression, STATE 1278),
     (sym_if_null_expression, STATE 1679), (sym_conditional_expression, STATE 1679),
     (sym_logical_or_expression, STATE 1679), (sym_logical_and_expression, STATE 1679),
     (sym_equality_expression, STATE 1679), (sym_type_cast_expression, STATE 1679),
     (sym_type_test_expression, STATE 1679), (sym_relational_expression, STATE 1679),
     (sym_bitwise_or_expression, STATE 1679), (sym_bitwise_xor_expression, STATE 1679),
     (sym_bitwise_and_expression, STATE 1679), (sym_shift_expression, STATE 1679),
     (sym_additive_expression, STATE 1679), (sym_multiplicative_expression, STATE 1679),
     (sym__unary_expression, STATE 1329), (sym_unary_expression, STATE 1480),
     (sym__postfix_expression, STATE 1480), (sym_postfix_expression, STATE 1481),
     (sym_prefix_operator, STATE 428), (sym_negation_operator, STATE 1450),
     (sym__exclamation_operator, STATE 1451), (sym_tilde_operator, STATE 1387),
     (sym_await_expression, STATE 1483), (sym_new_expression, STATE 1278),
     (sym_const_object_expression, STATE 1278), (sym__primary, STATE 716),
     (sym_parenthesized_expression, STATE 1278), (sym_constructor_invocation, STATE 717),
     (sym_constructor_tearoff, STATE 1278), (sym_type_arguments, STATE 3100),
     (sym_switch_expression, STATE 1278), (sym_type_parameters, STATE 2932),
     (sym__type_name, STATE 2949), (sym__formal_parameter_part, STATE 2342),
     (sym_formal_parameter_list, STATE 2020), (sym__strict_formal_parameter_list, STATE 2016),
     (sym__new_builtin, STATE 2091), (sym_this, STATE 1278), (sym_super, STATE 1335),
     (sym_comment, STATE 277), (sym_documentation_comment, STATE 277),
     (aux_sym_string_literal_repeat1, STATE 609), (sym_identifier, ACTIONS 774),
     (anon_sym_POUND, ACTIONS 776), (sym_decimal_integer_literal, ACTIONS 778),
     (sym_hex_integer_literal, ACTIONS 780), (sym_decimal_floating_point_literal, ACTIONS 778),
     (anon_sym_true, ACTIONS 782), (anon_sym_false, ACTIONS 784), (anon_sym_DQUOTE, ACTIONS 786),
     (anon_sym_SQUOTE, ACTIONS 788), (anon_sym_DQUOTE_DQUOTE_DQUOTE, ACTIONS 790),
     (anon_sym_SQUOTE_SQUOTE_SQUOTE, ACTIONS 792), (anon_sym_r_DQUOTE, ACTIONS 794),
     (anon_sym_r_SQUOTE, ACTIONS 796), (anon_sym_r_DQUOTE_DQUOTE_DQUOTE, ACTIONS 798),
     (anon_sym_r_SQUOTE_SQUOTE_SQUOTE, ACTIONS 800), (anon_sym_LBRACE, ACTIONS 802),
     (anon_sym_LBRACK, ACTIONS 804), (anon_sym_null, ACTIONS 806),
     (anon_sym_LPAREN, ACTIONS 808), (anon_sym_throw, ACTIONS 824), (anon_sym_LT, ACTIONS 111),
     (sym_increment_operator, ACTIONS 812), (sym_minus_operator, ACTIONS 814),
     (anon_sym_BANG, ACTIONS 119), (anon_sym_TILDE, ACTIONS 121), (anon_sym_await, ACTIONS 816),
     (anon_sym_switch, ACTIONS 818), (anon_sym_new, ACTIONS 155),
     (sym_const_builtin, ACTIONS 820), (anon_sym_this, ACTIONS 822),
     (anon_sym_super, ACTIONS 161), (anon_sym_SLASH_SLASH, ACTIONS 3),
     (anon_sym_SLASH_STAR, ACTIONS 5), (anon_sym_SLASH_SLASH_SLASH, ACTIONS 7),
     (sym__block_comment, ACTIONS 9), (sym__documentation_block_comment, ACTIONS 11)]"

lemma row_ok_277: "table_row_ok 277 ts_parse_table_277"
  by (simp add: row_simps ts_parse_table_277_def)

definition ts_parse_table_278 :: table_row where
  "ts_parse_table_278 = [
     (sym__bool_literal, STATE 1279), (sym__numeric_literal, STATE 1279),
     (sym__literal, STATE 1278), (sym_symbol_literal, STATE 1279), (sym_true, STATE 1275),
     (sym_false, STATE 1275), (sym_string_literal, STATE 1279),
     (sym__string_literal_double_quotes, STATE 799),
     (sym__string_literal_single_quotes, STATE 799),
     (sym__string_literal_double_quotes_multiple, STATE 799),
     (sym__string_literal_single_quotes_multiple, STATE 799),
     (sym__raw_string_literal_double_quotes, STATE 799),
     (sym__raw_string_literal_single_quotes, STATE 799),
     (sym__raw_string_literal_double_quotes_multiple, STATE 799),
     (sym__raw_string_literal_single_quotes_multiple, STATE 799), (sym_list_literal, STATE 1279),
     (sym_set_or_map_literal, STATE 1279), (sym_null_literal, STATE 1279),
     (sym_record_literal, STATE 1279), (sym__record_literal_no_const, STATE 1268),
     (sym__expression_without_cascade, STATE 3313), (sym__real_expression, STATE 754),
     (sym_throw_expression_without_cascade, STATE 1497),
     (sym_assignment_expression_without_cascade, STATE 1497),
     (sym_assignable_expression, STATE 1931), (sym_function_expression, STATE 1278),
     (sym_if_null_expression, STATE 1679), (sym_conditional_expression, STATE 1679),
     (sym_logical_or_expression, STATE 1679), (sym_logical_and_expression, STATE 1679),
     (sym_equality_expression, STATE 1679), (sym_type_cast_expression, STATE 1679),
     (sym_type_test_expression, STATE 1679), (sym_relational_expression, STATE 1679),
     (sym_bitwise_or_expression, STATE 1679), (sym_bitwise_xor_expression, STATE 1679),
     (sym_bitwise_and_expression, STATE 1679), (sym_shift_expression, STATE 1679),
     (sym_additive_expression, STATE 1679), (sym_multiplicative_expression, STATE 1679),
     (sym__unary_expression, STATE 1329), (sym_unary_expression, STATE 1480),
     (sym__postfix_expression, STATE 1480), (sym_postfix_expression, STATE 1481),
     (sym_prefix_operator, STATE 428), (sym_negation_operator, STATE 1450),
     (sym__exclamation_operator, STATE 1451), (sym_tilde_operator, STATE 1387),
     (sym_await_expression, STATE 1483), (sym_new_expression, STATE 1278),
     (sym_const_object_expression, STATE 1278), (sym__primary, STATE 716),
     (sym_parenthesized_expression, STATE 1278), (sym_constructor_invocation, STATE 717),
     (sym_constructor_tearoff, STATE 1278), (sym_type_arguments, STATE 3100),
     (sym_switch_expression, STATE 1278), (sym_type_parameters, STATE 2932),
     (sym__type_name, STATE 2949), (sym__formal_parameter_part, STATE 2342),
     (sym_formal_parameter_list, STATE 2020), (sym__strict_formal_parameter_list, STATE 2016),
     (sym__new_builtin, STATE 2091), (sym_this, STATE 1278), (sym_super, STATE 1335),
     (sym_comment, STATE 278), (sym_documentation_comment, STATE 278),
     (aux_sym_string_literal_repeat1, STATE 609), (sym_identifier, ACTIONS 774),
     (anon_sym_POUND, ACTIONS 776), (sym_decimal_integer_literal, ACTIONS 778),
     (sym_hex_integer_literal, ACTIONS 780), (sym_decimal_floating_point_literal, ACTIONS 778),
     (anon_sym_true, ACTIONS 782), (anon_sym_false, ACTIONS 784), (anon_sym_DQUOTE, ACTIONS 786),
     (anon_sym_SQUOTE, ACTIONS 788), (anon_sym_DQUOTE_DQUOTE_DQUOTE, ACTIONS 790),
     (anon_sym_SQUOTE_SQUOTE_SQUOTE, ACTIONS 792), (anon_sym_r_DQUOTE, ACTIONS 794),
     (anon_sym_r_SQUOTE, ACTIONS 796), (anon_sym_r_DQUOTE_DQUOTE_DQUOTE, ACTIONS 798),
     (anon_sym_r_SQUOTE_SQUOTE_SQUOTE, ACTIONS 800), (anon_sym_LBRACE, ACTIONS 802),
     (anon_sym_LBRACK, ACTIONS 804), (anon_sym_null, ACTIONS 806),
     (anon_sym_LPAREN, ACTIONS 808), (anon_sym_throw, ACTIONS 810), (anon_sym_LT, ACTIONS 111),
     (sym_increment_operator, ACTIONS 812), (sym_minus_operator, ACTIONS 814),
     (anon_sym_BANG, ACTIONS 119), (anon_sym_TILDE, ACTIONS 121), (anon_sym_await, ACTIONS 816),
     (anon_sym_switch, ACTIONS 818), (anon_sym_new, ACTIONS 155),
     (sym_const_builtin, ACTIONS 820), (anon_sym_this, ACTIONS 822),
     (anon_sym_super, ACTIONS 161), (anon_sym_SLASH_SLASH, ACTIONS 3),
     (anon_sym_SLASH_STAR, ACTIONS 5), (anon_sym_SLASH_SLASH_SLASH, ACTIONS 7),
     (sym__block_comment, ACTIONS 9), (sym__documentation_block_comment, ACTIONS 11)]"

lemma row_ok_278: "table_row_ok 278 ts_parse_table_278"
  by (simp add: row_simps ts_parse_table_278_def)

definition ts_parse_table_279 :: table_row where
  "ts_parse_table_279 = [
     (sym__bool_literal, STATE 1279), (sym__numeric_literal, STATE 1279),
     (sym__literal, STATE 1278), (sym_symbol_literal, STATE 1279), (sym_true, STATE 1275),
     (sym_false, STATE 1275), (sym_string_literal, STATE 1279),
     (sym__string_literal_double_quotes, STATE 799),
     (sym__string_literal_single_quotes, STATE 799),
     (sym__string_literal_double_quotes_multiple, STATE 799),
     (sym__string_literal_single_quotes_multiple, STATE 799),
     (sym__raw_string_literal_double_quotes, STATE 799),
     (sym__raw_string_literal_single_quotes, STATE 799),
     (sym__raw_string_literal_double_quotes_multiple, STATE 799),
     (sym__raw_string_literal_single_quotes_multiple, STATE 799), (sym_list_literal, STATE 1279),
     (sym_set_or_map_literal, STATE 1279), (sym_null_literal, STATE 1279),
     (sym_record_literal, STATE 1279), (sym__record_literal_no_const, STATE 1268),
     (sym__expression_without_cascade, STATE 3544), (sym__real_expression, STATE 754),
     (sym_throw_expression_without_cascade, STATE 1497),
     (sym_assignment_expression_without_cascade, STATE 1497),
     (sym_assignable_expression, STATE 1931), (sym_function_expression, STATE 1278),
     (sym_if_null_expression, STATE 1679), (sym_conditional_expression, STATE 1679),
     (sym_logical_or_expression, STATE 1679), (sym_logical_and_expression, STATE 1679),
     (sym_equality_expression, STATE 1679), (sym_type_cast_expression, STATE 1679),
     (sym_type_test_expression, STATE 1679), (sym_relational_expression, STATE 1679),
     (sym_bitwise_or_expression, STATE 1679), (sym_bitwise_xor_expression, STATE 1679),
     (sym_bitwise_and_expression, STATE 1679), (sym_shift_expression, STATE 1679),
     (sym_additive_expression, STATE 1679), (sym_multiplicative_expression, STATE 1679),
     (sym__unary_expression, STATE 1329), (sym_unary_expression, STATE 1480),
     (sym__postfix_expression, STATE 1480), (sym_postfix_expression, STATE 1481),
     (sym_prefix_operator, STATE 428), (sym_negation_operator, STATE 1450),
     (sym__exclamation_operator, STATE 1451), (sym_tilde_operator, STATE 1387),
     (sym_await_expression, STATE 1483), (sym_new_expression, STATE 1278),
     (sym_const_object_expression, STATE 1278), (sym__primary, STATE 716),
     (sym_parenthesized_expression, STATE 1278), (sym_constructor_invocation, STATE 717),
     (sym_constructor_tearoff, STATE 1278), (sym_type_arguments, STATE 3100),
     (sym_switch_expression, STATE 1278), (sym_type_parameters, STATE 2932),
     (sym__type_name, STATE 2949), (sym__formal_parameter_part, STATE 2342),
     (sym_formal_parameter_list, STATE 2020), (sym__strict_formal_parameter_list, STATE 2016),
     (sym__new_builtin, STATE 2091), (sym_this, STATE 1278), (sym_super, STATE 1335),
     (sym_comment, STATE 279), (sym_documentation_comment, STATE 279),
     (aux_sym_string_literal_repeat1, STATE 609), (sym_identifier, ACTIONS 774),
     (anon_sym_POUND, ACTIONS 776), (sym_decimal_integer_literal, ACTIONS 778),
     (sym_hex_integer_literal, ACTIONS 780), (sym_decimal_floating_point_literal, ACTIONS 778),
     (anon_sym_true, ACTIONS 782), (anon_sym_false, ACTIONS 784), (anon_sym_DQUOTE, ACTIONS 786),
     (anon_sym_SQUOTE, ACTIONS 788), (anon_sym_DQUOTE_DQUOTE_DQUOTE, ACTIONS 790),
     (anon_sym_SQUOTE_SQUOTE_SQUOTE, ACTIONS 792), (anon_sym_r_DQUOTE, ACTIONS 794),
     (anon_sym_r_SQUOTE, ACTIONS 796), (anon_sym_r_DQUOTE_DQUOTE_DQUOTE, ACTIONS 798),
     (anon_sym_r_SQUOTE_SQUOTE_SQUOTE, ACTIONS 800), (anon_sym_LBRACE, ACTIONS 802),
     (anon_sym_LBRACK, ACTIONS 804), (anon_sym_null, ACTIONS 806),
     (anon_sym_LPAREN, ACTIONS 808), (anon_sym_throw, ACTIONS 810), (anon_sym_LT, ACTIONS 111),
     (sym_increment_operator, ACTIONS 812), (sym_minus_operator, ACTIONS 814),
     (anon_sym_BANG, ACTIONS 119), (anon_sym_TILDE, ACTIONS 121), (anon_sym_await, ACTIONS 816),
     (anon_sym_switch, ACTIONS 818), (anon_sym_new, ACTIONS 155),
     (sym_const_builtin, ACTIONS 820), (anon_sym_this, ACTIONS 822),
     (anon_sym_super, ACTIONS 161), (anon_sym_SLASH_SLASH, ACTIONS 3),
     (anon_sym_SLASH_STAR, ACTIONS 5), (anon_sym_SLASH_SLASH_SLASH, ACTIONS 7),
     (sym__block_comment, ACTIONS 9), (sym__documentation_block_comment, ACTIONS 11)]"

lemma row_ok_279: "table_row_ok 279 ts_parse_table_279"
  by (simp add: row_simps ts_parse_table_279_def)

definition ts_parse_table_280 :: table_row where
  "ts_parse_table_280 = [
     (sym__bool_literal, STATE 989), (sym__numeric_literal, STATE 989),
     (sym__literal, STATE 962), (sym_symbol_literal, STATE 989), (sym_true, STATE 900),
     (sym_false, STATE 900), (sym_string_literal, STATE 989),
     (sym__string_literal_double_quotes, STATE 627),
     (sym__string_literal_single_quotes, STATE 627),
     (sym__string_literal_double_quotes_multiple, STATE 627),
     (sym__string_literal_single_quotes_multiple, STATE 627),
     (sym__raw_string_literal_double_quotes, STATE 627),
     (sym__raw_string_literal_single_quotes, STATE 627),
     (sym__raw_string_literal_double_quotes_multiple, STATE 627),
     (sym__raw_string_literal_single_quotes_multiple, STATE 627), (sym_list_literal, STATE 989),
     (sym_set_or_map_literal, STATE 989), (sym_null_literal, STATE 989),
     (sym_record_literal, STATE 989), (sym__record_literal_no_const, STATE 924),
     (sym__expression_without_cascade, STATE 1968), (sym__real_expression, STATE 757),
     (sym_throw_expression_without_cascade, STATE 1964),
     (sym_assignment_expression_without_cascade, STATE 1964),
     (sym_assignable_expression, STATE 1938), (sym_function_expression, STATE 962),
     (sym_if_null_expression, STATE 996), (sym_conditional_expression, STATE 996),
     (sym_logical_or_expression, STATE 996), (sym_logical_and_expression, STATE 996),
     (sym_equality_expression, STATE 996), (sym_type_cast_expression, STATE 996),
     (sym_type_test_expression, STATE 996), (sym_relational_expression, STATE 996),
     (sym_bitwise_or_expression, STATE 996), (sym_bitwise_xor_expression, STATE 996),
     (sym_bitwise_and_expression, STATE 996), (sym_shift_expression, STATE 996),
     (sym_additive_expression, STATE 996), (sym_multiplicative_expression, STATE 996),
     (sym__unary_expression, STATE 1323), (sym_unary_expression, STATE 994),
     (sym__postfix_expression, STATE 994), (sym_postfix_expression, STATE 993),
     (sym_prefix_operator, STATE 421), (sym_negation_operator, STATE 1450),
     (sym__exclamation_operator, STATE 1451), (sym_tilde_operator, STATE 1357),
     (sym_await_expression, STATE 991), (sym_new_expression, STATE 962),
     (sym_const_object_expression, STATE 962), (sym__primary, STATE 648),
     (sym_parenthesized_expression, STATE 962), (sym_constructor_invocation, STATE 643),
     (sym_constructor_tearoff, STATE 962), (sym_type_arguments, STATE 3146),
     (sym_switch_expression, STATE 962), (sym_type_parameters, STATE 2932),
     (sym__type_name, STATE 2859), (sym__formal_parameter_part, STATE 2339),
     (sym_formal_parameter_list, STATE 2020), (sym__strict_formal_parameter_list, STATE 2016),
     (sym__new_builtin, STATE 2079), (sym_this, STATE 962), (sym_super, STATE 1339),
     (sym_comment, STATE 280), (sym_documentation_comment, STATE 280),
     (aux_sym_string_literal_repeat1, STATE 474), (sym_identifier, ACTIONS 764),
     (anon_sym_POUND, ACTIONS 73), (sym_decimal_integer_literal, ACTIONS 75),
     (sym_hex_integer_literal, ACTIONS 77), (sym_decimal_floating_point_literal, ACTIONS 75),
     (anon_sym_true, ACTIONS 79), (anon_sym_false, ACTIONS 81), (anon_sym_DQUOTE, ACTIONS 83),
     (anon_sym_SQUOTE, ACTIONS 85), (anon_sym_DQUOTE_DQUOTE_DQUOTE, ACTIONS 87),
     (anon_sym_SQUOTE_SQUOTE_SQUOTE, ACTIONS 89), (anon_sym_r_DQUOTE, ACTIONS 91),
     (anon_sym_r_SQUOTE, ACTIONS 93), (anon_sym_r_DQUOTE_DQUOTE_DQUOTE, ACTIONS 95),
     (anon_sym_r_SQUOTE_SQUOTE_SQUOTE, ACTIONS 97), (anon_sym_LBRACE, ACTIONS 766),
     (anon_sym_LBRACK, ACTIONS 768), (anon_sym_null, ACTIONS 105),
     (anon_sym_LPAREN, ACTIONS 770), (anon_sym_throw, ACTIONS 772), (anon_sym_LT, ACTIONS 111),
     (sym_increment_operator, ACTIONS 688), (sym_minus_operator, ACTIONS 690),
     (anon_sym_BANG, ACTIONS 119), (anon_sym_TILDE, ACTIONS 121), (anon_sym_await, ACTIONS 692),
     (anon_sym_switch, ACTIONS 412), (anon_sym_new, ACTIONS 155),
     (sym_const_builtin, ACTIONS 478), (anon_sym_this, ACTIONS 159),
     (anon_sym_super, ACTIONS 161), (anon_sym_SLASH_SLASH, ACTIONS 3),
     (anon_sym_SLASH_STAR, ACTIONS 5), (anon_sym_SLASH_SLASH_SLASH, ACTIONS 7),
     (sym__block_comment, ACTIONS 9), (sym__documentation_block_comment, ACTIONS 11)]"

lemma row_ok_280: "table_row_ok 280 ts_parse_table_280"
  by (simp add: row_simps ts_parse_table_280_def)

definition ts_parse_table_281 :: table_row where
  "ts_parse_table_281 = [
     (sym__bool_literal, STATE 1115), (sym__numeric_literal, STATE 1115),
     (sym__literal, STATE 1135), (sym_symbol_literal, STATE 1115), (sym_true, STATE 1165),
     (sym_false, STATE 1165), (sym_string_literal, STATE 1115),
     (sym__string_literal_double_quotes, STATE 729),
     (sym__string_literal_single_quotes, STATE 729),
     (sym__string_literal_double_quotes_multiple, STATE 729),
     (sym__string_literal_single_quotes_multiple, STATE 729),
     (sym__raw_string_literal_double_quotes, STATE 729),
     (sym__raw_string_literal_single_quotes, STATE 729),
     (sym__raw_string_literal_double_quotes_multiple, STATE 729),
     (sym__raw_string_literal_single_quotes_multiple, STATE 729), (sym_list_literal, STATE 1115),
     (sym_set_or_map_literal, STATE 1115), (sym_null_literal, STATE 1115),
     (sym_record_literal, STATE 1115), (sym__record_literal_no_const, STATE 1187),
     (sym__expression_without_cascade, STATE 1172), (sym__real_expression, STATE 554),
     (sym_throw_expression_without_cascade, STATE 1159),
     (sym_assignment_expression_without_cascade, STATE 1159),
     (sym_assignable_expression, STATE 1960), (sym_function_expression, STATE 1135),
     (sym_if_null_expression, STATE 1117), (sym_conditional_expression, STATE 1117),
     (sym_logical_or_expression, STATE 1117), (sym_logical_and_expression, STATE 1117),
     (sym_equality_expression, STATE 1117), (sym_type_cast_expression, STATE 1117),
     (sym_type_test_expression, STATE 1117), (sym_relational_expression, STATE 1117),
     (sym_bitwise_or_expression, STATE 1117), (sym_bitwise_xor_expression, STATE 1117),
     (sym_bitwise_and_expression, STATE 1117), (sym_shift_expression, STATE 1117),
     (sym_additive_expression, STATE 1117), (sym_multiplicative_expression, STATE 1117),
     (sym__unary_expression, STATE 902), (sym_unary_expression, STATE 1114),
     (sym__postfix_expression, STATE 1114), (sym_postfix_expression, STATE 1098),
     (sym_prefix_operator, STATE 417), (sym_negation_operator, STATE 1450),
     (sym__exclamation_operator, STATE 1451), (sym_tilde_operator, STATE 1359),
     (sym_await_expression, STATE 1093), (sym_new_expression, STATE 1135),
     (sym_const_object_expression, STATE 1135), (sym__primary, STATE 690),
     (sym_parenthesized_expression, STATE 1135), (sym_constructor_invocation, STATE 699),
     (sym_constructor_tearoff, STATE 1135), (sym_type_arguments, STATE 3081),
     (sym_switch_expression, STATE 1135), (sym_type_parameters, STATE 2932),
     (sym__type_name, STATE 2826), (sym__formal_parameter_part, STATE 2358),
     (sym_formal_parameter_list, STATE 2020), (sym__strict_formal_parameter_list, STATE 2016),
     (sym__new_builtin, STATE 2074), (sym_this, STATE 1135), (sym_super, STATE 1344),
     (sym_comment, STATE 281), (sym_documentation_comment, STATE 281),
     (aux_sym_string_literal_repeat1, STATE 595), (sym_identifier, ACTIONS 754),
     (anon_sym_POUND, ACTIONS 698), (sym_decimal_integer_literal, ACTIONS 700),
     (sym_hex_integer_literal, ACTIONS 702), (sym_decimal_floating_point_literal, ACTIONS 700),
     (anon_sym_true, ACTIONS 704), (anon_sym_false, ACTIONS 706), (anon_sym_DQUOTE, ACTIONS 708),
     (anon_sym_SQUOTE, ACTIONS 710), (anon_sym_DQUOTE_DQUOTE_DQUOTE, ACTIONS 712),
     (anon_sym_SQUOTE_SQUOTE_SQUOTE, ACTIONS 714), (anon_sym_r_DQUOTE, ACTIONS 716),
     (anon_sym_r_SQUOTE, ACTIONS 718), (anon_sym_r_DQUOTE_DQUOTE_DQUOTE, ACTIONS 720),
     (anon_sym_r_SQUOTE_SQUOTE_SQUOTE, ACTIONS 722), (anon_sym_LBRACE, ACTIONS 756),
     (anon_sym_LBRACK, ACTIONS 758), (anon_sym_null, ACTIONS 728),
     (anon_sym_LPAREN, ACTIONS 760), (anon_sym_throw, ACTIONS 762), (anon_sym_LT, ACTIONS 111),
     (sym_increment_operator, ACTIONS 734), (sym_minus_operator, ACTIONS 736),
     (anon_sym_BANG, ACTIONS 119), (anon_sym_TILDE, ACTIONS 121), (anon_sym_await, ACTIONS 738),
     (anon_sym_switch, ACTIONS 740), (anon_sym_new, ACTIONS 155),
     (sym_const_builtin, ACTIONS 744), (anon_sym_this, ACTIONS 746),
     (anon_sym_super, ACTIONS 161), (anon_sym_SLASH_SLASH, ACTIONS 3),
     (anon_sym_SLASH_STAR, ACTIONS 5), (anon_sym_SLASH_SLASH_SLASH, ACTIONS 7),
     (sym__block_comment, ACTIONS 9), (sym__documentation_block_comment, ACTIONS 11)]"

lemma row_ok_281: "table_row_ok 281 ts_parse_table_281"
  by (simp add: row_simps ts_parse_table_281_def)

definition ts_parse_table_282 :: table_row where
  "ts_parse_table_282 = [
     (sym__bool_literal, STATE 1279), (sym__numeric_literal, STATE 1279),
     (sym__literal, STATE 1278), (sym_symbol_literal, STATE 1279), (sym_true, STATE 1275),
     (sym_false, STATE 1275), (sym_string_literal, STATE 1279),
     (sym__string_literal_double_quotes, STATE 799),
     (sym__string_literal_single_quotes, STATE 799),
     (sym__string_literal_double_quotes_multiple, STATE 799),
     (sym__string_literal_single_quotes_multiple, STATE 799),
     (sym__raw_string_literal_double_quotes, STATE 799),
     (sym__raw_string_literal_single_quotes, STATE 799),
     (sym__raw_string_literal_double_quotes_multiple, STATE 799),
     (sym__raw_string_literal_single_quotes_multiple, STATE 799), (sym_list_literal, STATE 1279),
     (sym_set_or_map_literal, STATE 1279), (sym_null_literal, STATE 1279),
     (sym_record_literal, STATE 1279), (sym__record_literal_no_const, STATE 1268),
     (sym__expression_without_cascade, STATE 1696), (sym__real_expression, STATE 754),
     (sym_throw_expression_without_cascade, STATE 1710),
     (sym_assignment_expression_without_cascade, STATE 1710),
     (sym_assignable_expression, STATE 1951), (sym_function_expression, STATE 1278),
     (sym_if_null_expression, STATE 1679), (sym_conditional_expression, STATE 1679),
     (sym_logical_or_expression, STATE 1679), (sym_logical_and_expression, STATE 1679),
     (sym_equality_expression, STATE 1679), (sym_type_cast_expression, STATE 1679),
     (sym_type_test_expression, STATE 1679), (sym_relational_expression, STATE 1679),
     (sym_bitwise_or_expression, STATE 1679), (sym_bitwise_xor_expression, STATE 1679),
     (sym_bitwise_and_expression, STATE 1679), (sym_shift_expression, STATE 1679),
     (sym_additive_expression, STATE 1679), (sym_multiplicative_expression, STATE 1679),
     (sym__unary_expression, STATE 1329), (sym_unary_expression, STATE 1480),
     (sym__postfix_expression, STATE 1480), (sym_postfix_expression, STATE 1481),
     (sym_prefix_operator, STATE 428), (sym_negation_operator, STATE 1450),
     (sym__exclamation_operator, STATE 1451), (sym_tilde_operator, STATE 1387),
     (sym_await_expression, STATE 1483), (sym_new_expression, STATE 1278),
     (sym_const_object_expression, STATE 1278), (sym__primary, STATE 716),
     (sym_parenthesized_expression, STATE 1278), (sym_constructor_invocation, STATE 717),
     (sym_constructor_tearoff, STATE 1278), (sym_type_arguments, STATE 3100),
     (sym_switch_expression, STATE 1278), (sym_type_parameters, STATE 2932),
     (sym__type_name, STATE 2949), (sym__formal_parameter_part, STATE 2342),
     (sym_formal_parameter_list, STATE 2020), (sym__strict_formal_parameter_list, STATE 2016),
     (sym__new_builtin, STATE 2091), (sym_this, STATE 1278), (sym_super, STATE 1335),
     (sym_comment, STATE 282), (sym_documentation_comment, STATE 282),
     (aux_sym_string_literal_repeat1, STATE 609), (sym_identifier, ACTIONS 774),
     (anon_sym_POUND, ACTIONS 776), (sym_decimal_integer_literal, ACTIONS 778),
     (sym_hex_integer_literal, ACTIONS 780), (sym_decimal_floating_point_literal, ACTIONS 778),
     (anon_sym_true, ACTIONS 782), (anon_sym_false, ACTIONS 784), (anon_sym_DQUOTE, ACTIONS 786),
     (anon_sym_SQUOTE, ACTIONS 788), (anon_sym_DQUOTE_DQUOTE_DQUOTE, ACTIONS 790),
     (anon_sym_SQUOTE_SQUOTE_SQUOTE, ACTIONS 792), (anon_sym_r_DQUOTE, ACTIONS 794),
     (anon_sym_r_SQUOTE, ACTIONS 796), (anon_sym_r_DQUOTE_DQUOTE_DQUOTE, ACTIONS 798),
     (anon_sym_r_SQUOTE_SQUOTE_SQUOTE, ACTIONS 800), (anon_sym_LBRACE, ACTIONS 802),
     (anon_sym_LBRACK, ACTIONS 804), (anon_sym_null, ACTIONS 806),
     (anon_sym_LPAREN, ACTIONS 808), (anon_sym_throw, ACTIONS 824), (anon_sym_LT, ACTIONS 111),
     (sym_increment_operator, ACTIONS 812), (sym_minus_operator, ACTIONS 814),
     (anon_sym_BANG, ACTIONS 119), (anon_sym_TILDE, ACTIONS 121), (anon_sym_await, ACTIONS 816),
     (anon_sym_switch, ACTIONS 818), (anon_sym_new, ACTIONS 155),
     (sym_const_builtin, ACTIONS 820), (anon_sym_this, ACTIONS 822),
     (anon_sym_super, ACTIONS 161), (anon_sym_SLASH_SLASH, ACTIONS 3),
     (anon_sym_SLASH_STAR, ACTIONS 5), (anon_sym_SLASH_SLASH_SLASH, ACTIONS 7),
     (sym__block_comment, ACTIONS 9), (sym__documentation_block_comment, ACTIONS 11)]"

lemma row_ok_282: "table_row_ok 282 ts_parse_table_282"
  by (simp add: row_simps ts_parse_table_282_def)

definition ts_parse_table_283 :: table_row where
  "ts_parse_table_283 = [
     (sym__bool_literal, STATE 1279), (sym__numeric_literal, STATE 1279),
     (sym__literal, STATE 1278), (sym_symbol_literal, STATE 1279), (sym_true, STATE 1275),
     (sym_false, STATE 1275), (sym_string_literal, STATE 1279),
     (sym__string_literal_double_quotes, STATE 799),
     (sym__string_literal_single_quotes, STATE 799),
     (sym__string_literal_double_quotes_multiple, STATE 799),
     (sym__string_literal_single_quotes_multiple, STATE 799),
     (sym__raw_string_literal_double_quotes, STATE 799),
     (sym__raw_string_literal_single_quotes, STATE 799),
     (sym__raw_string_literal_double_quotes_multiple, STATE 799),
     (sym__raw_string_literal_single_quotes_multiple, STATE 799), (sym_list_literal, STATE 1279),
     (sym_set_or_map_literal, STATE 1279), (sym_null_literal, STATE 1279),
     (sym_record_literal, STATE 1279), (sym__record_literal_no_const, STATE 1268),
     (sym__expression_without_cascade, STATE 3330), (sym__real_expression, STATE 754),
     (sym_throw_expression_without_cascade, STATE 1497),
     (sym_assignment_expression_without_cascade, STATE 1497),
     (sym_assignable_expression, STATE 1931), (sym_function_expression, STATE 1278),
     (sym_if_null_expression, STATE 1679), (sym_conditional_expression, STATE 1679),
     (sym_logical_or_expression, STATE 1679), (sym_logical_and_expression, STATE 1679),
     (sym_equality_expression, STATE 1679), (sym_type_cast_expression, STATE 1679),
     (sym_type_test_expression, STATE 1679), (sym_relational_expression, STATE 1679),
     (sym_bitwise_or_expression, STATE 1679), (sym_bitwise_xor_expression, STATE 1679),
     (sym_bitwise_and_expression, STATE 1679), (sym_shift_expression, STATE 1679),
     (sym_additive_expression, STATE 1679), (sym_multiplicative_expression, STATE 1679),
     (sym__unary_expression, STATE 1329), (sym_unary_expression, STATE 1480),
     (sym__postfix_expression, STATE 1480), (sym_postfix_expression, STATE 1481),
     (sym_prefix_operator, STATE 428), (sym_negation_operator, STATE 1450),
     (sym__exclamation_operator, STATE 1451), (sym_tilde_operator, STATE 1387),
     (sym_await_expression, STATE 1483), (sym_new_expression, STATE 1278),
     (sym_const_object_expression, STATE 1278), (sym__primary, STATE 716),
     (sym_parenthesized_expression, STATE 1278), (sym_constructor_invocation, STATE 717),
     (sym_constructor_tearoff, STATE 1278), (sym_type_arguments, STATE 3100),
     (sym_switch_expression, STATE 1278), (sym_type_parameters, STATE 2932),
     (sym__type_name, STATE 2949), (sym__formal_parameter_part, STATE 2342),
     (sym_formal_parameter_list, STATE 2020), (sym__strict_formal_parameter_list, STATE 2016),
     (sym__new_builtin, STATE 2091), (sym_this, STATE 1278), (sym_super, STATE 1335),
     (sym_comment, STATE 283), (sym_documentation_comment, STATE 283),
     (aux_sym_string_literal_repeat1, STATE 609), (sym_identifier, ACTIONS 774),
     (anon_sym_POUND, ACTIONS 776), (sym_decimal_integer_literal, ACTIONS 778),
     (sym_hex_integer_literal, ACTIONS 780), (sym_decimal_floating_point_literal, ACTIONS 778),
     (anon_sym_true, ACTIONS 782), (anon_sym_false, ACTIONS 784), (anon_sym_DQUOTE, ACTIONS 786),
     (anon_sym_SQUOTE, ACTIONS 788), (anon_sym_DQUOTE_DQUOTE_DQUOTE, ACTIONS 790),
     (anon_sym_SQUOTE_SQUOTE_SQUOTE, ACTIONS 792), (anon_sym_r_DQUOTE, ACTIONS 794),
     (anon_sym_r_SQUOTE, ACTIONS 796), (anon_sym_r_DQUOTE_DQUOTE_DQUOTE, ACTIONS 798),
     (anon_sym_r_SQUOTE_SQUOTE_SQUOTE, ACTIONS 800), (anon_sym_LBRACE, ACTIONS 802),
     (anon_sym_LBRACK, ACTIONS 804), (anon_sym_null, ACTIONS 806),
     (anon_sym_LPAREN, ACTIONS 808), (anon_sym_throw, ACTIONS 810), (anon_sym_LT, ACTIONS 111),
     (sym_increment_operator, ACTIONS 812), (sym_minus_operator, ACTIONS 814),
     (anon_sym_BANG, ACTIONS 119), (anon_sym_TILDE, ACTIONS 121), (anon_sym_await, ACTIONS 816),
     (anon_sym_switch, ACTIONS 818), (anon_sym_new, ACTIONS 155),
     (sym_const_builtin, ACTIONS 820), (anon_sym_this, ACTIONS 822),
     (anon_sym_super, ACTIONS 161), (anon_sym_SLASH_SLASH, ACTIONS 3),
     (anon_sym_SLASH_STAR, ACTIONS 5), (anon_sym_SLASH_SLASH_SLASH, ACTIONS 7),
     (sym__block_comment, ACTIONS 9), (sym__documentation_block_comment, ACTIONS 11)]"

lemma row_ok_283: "table_row_ok 283 ts_parse_table_283"
  by (simp add: row_simps ts_parse_table_283_def)

definition ts_parse_table_284 :: table_row where
  "ts_parse_table_284 = [
     (sym__bool_literal, STATE 1115), (sym__numeric_literal, STATE 1115),
     (sym__literal, STATE 1135), (sym_symbol_literal, STATE 1115), (sym_true, STATE 1165),
     (sym_false, STATE 1165), (sym_string_literal, STATE 1115),
     (sym__string_literal_double_quotes, STATE 729),
     (sym__string_literal_single_quotes, STATE 729),
     (sym__string_literal_double_quotes_multiple, STATE 729),
     (sym__string_literal_single_quotes_multiple, STATE 729),
     (sym__raw_string_literal_double_quotes, STATE 729),
     (sym__raw_string_literal_single_quotes, STATE 729),
     (sym__raw_string_literal_double_quotes_multiple, STATE 729),
     (sym__raw_string_literal_single_quotes_multiple, STATE 729), (sym_list_literal, STATE 1115),
     (sym_set_or_map_literal, STATE 1115), (sym_null_literal, STATE 1115),
     (sym_record_literal, STATE 1115), (sym__record_literal_no_const, STATE 1187),
     (sym__expression_without_cascade, STATE 1966), (sym__real_expression, STATE 724),
     (sym_throw_expression_without_cascade, STATE 1964),
     (sym_assignment_expression_without_cascade, STATE 1964),
     (sym_assignable_expression, STATE 1948), (sym_function_expression, STATE 1135),
     (sym_if_null_expression, STATE 1609), (sym_conditional_expression, STATE 1609),
     (sym_logical_or_expression, STATE 1609), (sym_logical_and_expression, STATE 1609),
     (sym_equality_expression, STATE 1609), (sym_type_cast_expression, STATE 1609),
     (sym_type_test_expression, STATE 1609), (sym_relational_expression, STATE 1609),
     (sym_bitwise_or_expression, STATE 1609), (sym_bitwise_xor_expression, STATE 1609),
     (sym_bitwise_and_expression, STATE 1609), (sym_shift_expression, STATE 1609),
     (sym_additive_expression, STATE 1609), (sym_multiplicative_expression, STATE 1609),
     (sym__unary_expression, STATE 1260), (sym_unary_expression, STATE 1391),
     (sym__postfix_expression, STATE 1391), (sym_postfix_expression, STATE 1390),
     (sym_prefix_operator, STATE 432), (sym_negation_operator, STATE 1450),
     (sym__exclamation_operator, STATE 1451), (sym_tilde_operator, STATE 1394),
     (sym_await_expression, STATE 1389), (sym_new_expression, STATE 1135),
     (sym_const_object_expression, STATE 1135), (sym__primary, STATE 703),
     (sym_parenthesized_expression, STATE 1135), (sym_constructor_invocation, STATE 699),
     (sym_constructor_tearoff, STATE 1135), (sym_type_arguments, STATE 3081),
     (sym_switch_expression, STATE 1135), (sym_type_parameters, STATE 2932),
     (sym__type_name, STATE 2826), (sym__formal_parameter_part, STATE 2358),
     (sym_formal_parameter_list, STATE 2020), (sym__strict_formal_parameter_list, STATE 2016),
     (sym__new_builtin, STATE 2074), (sym_this, STATE 1135), (sym_super, STATE 1345),
     (sym_comment, STATE 284), (sym_documentation_comment, STATE 284),
     (aux_sym_string_literal_repeat1, STATE 595), (sym_identifier, ACTIONS 754),
     (anon_sym_POUND, ACTIONS 698), (sym_decimal_integer_literal, ACTIONS 700),
     (sym_hex_integer_literal, ACTIONS 702), (sym_decimal_floating_point_literal, ACTIONS 700),
     (anon_sym_true, ACTIONS 704), (anon_sym_false, ACTIONS 706), (anon_sym_DQUOTE, ACTIONS 708),
     (anon_sym_SQUOTE, ACTIONS 710), (anon_sym_DQUOTE_DQUOTE_DQUOTE, ACTIONS 712),
     (anon_sym_SQUOTE_SQUOTE_SQUOTE, ACTIONS 714), (anon_sym_r_DQUOTE, ACTIONS 716),
     (anon_sym_r_SQUOTE, ACTIONS 718), (anon_sym_r_DQUOTE_DQUOTE_DQUOTE, ACTIONS 720),
     (anon_sym_r_SQUOTE_SQUOTE_SQUOTE, ACTIONS 722), (anon_sym_LBRACE, ACTIONS 756),
     (anon_sym_LBRACK, ACTIONS 758), (anon_sym_null, ACTIONS 728),
     (anon_sym_LPAREN, ACTIONS 760), (anon_sym_throw, ACTIONS 826), (anon_sym_LT, ACTIONS 111),
     (sym_increment_operator, ACTIONS 828), (sym_minus_operator, ACTIONS 830),
     (anon_sym_BANG, ACTIONS 119), (anon_sym_TILDE, ACTIONS 121), (anon_sym_await, ACTIONS 832),
     (anon_sym_switch, ACTIONS 740), (anon_sym_new, ACTIONS 155),
     (sym_const_builtin, ACTIONS 744), (anon_sym_this, ACTIONS 746),
     (anon_sym_super, ACTIONS 161), (anon_sym_SLASH_SLASH, ACTIONS 3),
     (anon_sym_SLASH_STAR, ACTIONS 5), (anon_sym_SLASH_SLASH_SLASH, ACTIONS 7),
     (sym__block_comment, ACTIONS 9), (sym__documentation_block_comment, ACTIONS 11)]"

lemma row_ok_284: "table_row_ok 284 ts_parse_table_284"
  by (simp add: row_simps ts_parse_table_284_def)

definition ts_parse_table_285 :: table_row where
  "ts_parse_table_285 = [
     (sym__bool_literal, STATE 989), (sym__numeric_literal, STATE 989),
     (sym__literal, STATE 962), (sym_symbol_literal, STATE 989), (sym_true, STATE 900),
     (sym_false, STATE 900), (sym_string_literal, STATE 989),
     (sym__string_literal_double_quotes, STATE 627),
     (sym__string_literal_single_quotes, STATE 627),
     (sym__string_literal_double_quotes_multiple, STATE 627),
     (sym__string_literal_single_quotes_multiple, STATE 627),
     (sym__raw_string_literal_double_quotes, STATE 627),
     (sym__raw_string_literal_single_quotes, STATE 627),
     (sym__raw_string_literal_double_quotes_multiple, STATE 627),
     (sym__raw_string_literal_single_quotes_multiple, STATE 627), (sym_list_literal, STATE 989),
     (sym_set_or_map_literal, STATE 989), (sym_null_literal, STATE 989),
     (sym_record_literal, STATE 989), (sym__record_literal_no_const, STATE 924),
     (sym__expression_without_cascade, STATE 950), (sym__real_expression, STATE 503),
     (sym_throw_expression_without_cascade, STATE 905),
     (sym_assignment_expression_without_cascade, STATE 905),
     (sym_assignable_expression, STATE 1943), (sym_function_expression, STATE 962),
     (sym_if_null_expression, STATE 996), (sym_conditional_expression, STATE 996),
     (sym_logical_or_expression, STATE 996), (sym_logical_and_expression, STATE 996),
     (sym_equality_expression, STATE 996), (sym_type_cast_expression, STATE 996),
     (sym_type_test_expression, STATE 996), (sym_relational_expression, STATE 996),
     (sym_bitwise_or_expression, STATE 996), (sym_bitwise_xor_expression, STATE 996),
     (sym_bitwise_and_expression, STATE 996), (sym_shift_expression, STATE 996),
     (sym_additive_expression, STATE 996), (sym_multiplicative_expression, STATE 996),
     (sym__unary_expression, STATE 787), (sym_unary_expression, STATE 994),
     (sym__postfix_expression, STATE 994), (sym_postfix_expression, STATE 993),
     (sym_prefix_operator, STATE 421), (sym_negation_operator, STATE 1450),
     (sym__exclamation_operator, STATE 1451), (sym_tilde_operator, STATE 1357),
     (sym_await_expression, STATE 991), (sym_new_expression, STATE 962),
     (sym_const_object_expression, STATE 962), (sym__primary, STATE 648),
     (sym_parenthesized_expression, STATE 962), (sym_constructor_invocation, STATE 643),
     (sym_constructor_tearoff, STATE 962), (sym_type_arguments, STATE 3146),
     (sym_switch_expression, STATE 962), (sym_type_parameters, STATE 2932),
     (sym__type_name, STATE 2859), (sym__formal_parameter_part, STATE 2339),
     (sym_formal_parameter_list, STATE 2020), (sym__strict_formal_parameter_list, STATE 2016),
     (sym__new_builtin, STATE 2079), (sym_this, STATE 962), (sym_super, STATE 1338),
     (sym_comment, STATE 285), (sym_documentation_comment, STATE 285),
     (aux_sym_string_literal_repeat1, STATE 474), (sym_identifier, ACTIONS 764),
     (anon_sym_POUND, ACTIONS 73), (sym_decimal_integer_literal, ACTIONS 75),
     (sym_hex_integer_literal, ACTIONS 77), (sym_decimal_floating_point_literal, ACTIONS 75),
     (anon_sym_true, ACTIONS 79), (anon_sym_false, ACTIONS 81), (anon_sym_DQUOTE, ACTIONS 83),
     (anon_sym_SQUOTE, ACTIONS 85), (anon_sym_DQUOTE_DQUOTE_DQUOTE, ACTIONS 87),
     (anon_sym_SQUOTE_SQUOTE_SQUOTE, ACTIONS 89), (anon_sym_r_DQUOTE, ACTIONS 91),
     (anon_sym_r_SQUOTE, ACTIONS 93), (anon_sym_r_DQUOTE_DQUOTE_DQUOTE, ACTIONS 95),
     (anon_sym_r_SQUOTE_SQUOTE_SQUOTE, ACTIONS 97), (anon_sym_LBRACE, ACTIONS 766),
     (anon_sym_LBRACK, ACTIONS 768), (anon_sym_null, ACTIONS 105),
     (anon_sym_LPAREN, ACTIONS 770), (anon_sym_throw, ACTIONS 834), (anon_sym_LT, ACTIONS 111),
     (sym_increment_operator, ACTIONS 688), (sym_minus_operator, ACTIONS 690),
     (anon_sym_BANG, ACTIONS 119), (anon_sym_TILDE, ACTIONS 121), (anon_sym_await, ACTIONS 692),
     (anon_sym_switch, ACTIONS 412), (anon_sym_new, ACTIONS 155),
     (sym_const_builtin, ACTIONS 478), (anon_sym_this, ACTIONS 159),
     (anon_sym_super, ACTIONS 161), (anon_sym_SLASH_SLASH, ACTIONS 3),
     (anon_sym_SLASH_STAR, ACTIONS 5), (anon_sym_SLASH_SLASH_SLASH, ACTIONS 7),
     (sym__block_comment, ACTIONS 9), (sym__documentation_block_comment, ACTIONS 11)]"

lemma row_ok_285: "table_row_ok 285 ts_parse_table_285"
  by (simp add: row_simps ts_parse_table_285_def)

definition ts_parse_table_286 :: table_row where
  "ts_parse_table_286 = [
     (sym__bool_literal, STATE 989), (sym__numeric_literal, STATE 989),
     (sym__literal, STATE 962), (sym_symbol_literal, STATE 989), (sym_true, STATE 900),
     (sym_false, STATE 900), (sym_string_literal, STATE 989),
     (sym__string_literal_double_quotes, STATE 627),
     (sym__string_literal_single_quotes, STATE 627),
     (sym__string_literal_double_quotes_multiple, STATE 627),
     (sym__string_literal_single_quotes_multiple, STATE 627),
     (sym__raw_string_literal_double_quotes, STATE 627),
     (sym__raw_string_literal_single_quotes, STATE 627),
     (sym__raw_string_literal_double_quotes_multiple, STATE 627),
     (sym__raw_string_literal_single_quotes_multiple, STATE 627), (sym_list_literal, STATE 989),
     (sym_set_or_map_literal, STATE 989), (sym_null_literal, STATE 989),
     (sym_record_literal, STATE 989), (sym__record_literal_no_const, STATE 924),
     (sym__expression_without_cascade, STATE 949), (sym__real_expression, STATE 503),
     (sym_throw_expression_without_cascade, STATE 905),
     (sym_assignment_expression_without_cascade, STATE 905),
     (sym_assignable_expression, STATE 1943), (sym_function_expression, STATE 962),
     (sym_if_null_expression, STATE 996), (sym_conditional_expression, STATE 996),
     (sym_logical_or_expression, STATE 996), (sym_logical_and_expression, STATE 996),
     (sym_equality_expression, STATE 996), (sym_type_cast_expression, STATE 996),
     (sym_type_test_expression, STATE 996), (sym_relational_expression, STATE 996),
     (sym_bitwise_or_expression, STATE 996), (sym_bitwise_xor_expression, STATE 996),
     (sym_bitwise_and_expression, STATE 996), (sym_shift_expression, STATE 996),
     (sym_additive_expression, STATE 996), (sym_multiplicative_expression, STATE 996),
     (sym__unary_expression, STATE 787), (sym_unary_expression, STATE 994),
     (sym__postfix_expression, STATE 994), (sym_postfix_expression, STATE 993),
     (sym_prefix_operator, STATE 421), (sym_negation_operator, STATE 1450),
     (sym__exclamation_operator, STATE 1451), (sym_tilde_operator, STATE 1357),
     (sym_await_expression, STATE 991), (sym_new_expression, STATE 962),
     (sym_const_object_expression, STATE 962), (sym__primary, STATE 648),
     (sym_parenthesized_expression, STATE 962), (sym_constructor_invocation, STATE 643),
     (sym_constructor_tearoff, STATE 962), (sym_type_arguments, STATE 3146),
     (sym_switch_expression, STATE 962), (sym_type_parameters, STATE 2932),
     (sym__type_name, STATE 2859), (sym__formal_parameter_part, STATE 2339),
     (sym_formal_parameter_list, STATE 2020), (sym__strict_formal_parameter_list, STATE 2016),
     (sym__new_builtin, STATE 2079), (sym_this, STATE 962), (sym_super, STATE 1338),
     (sym_comment, STATE 286), (sym_documentation_comment, STATE 286),
     (aux_sym_string_literal_repeat1, STATE 474), (sym_identifier, ACTIONS 764),
     (anon_sym_POUND, ACTIONS 73), (sym_decimal_integer_literal, ACTIONS 75),
     (sym_hex_integer_literal, ACTIONS 77), (sym_decimal_floating_point_literal, ACTIONS 75),
     (anon_sym_true, ACTIONS 79), (anon_sym_false, ACTIONS 81), (anon_sym_DQUOTE, ACTIONS 83),
     (anon_sym_SQUOTE, ACTIONS 85), (anon_sym_DQUOTE_DQUOTE_DQUOTE, ACTIONS 87),
     (anon_sym_SQUOTE_SQUOTE_SQUOTE, ACTIONS 89), (anon_sym_r_DQUOTE, ACTIONS 91),
     (anon_sym_r_SQUOTE, ACTIONS 93), (anon_sym_r_DQUOTE_DQUOTE_DQUOTE, ACTIONS 95),
     (anon_sym_r_SQUOTE_SQUOTE_SQUOTE, ACTIONS 97), (anon_sym_LBRACE, ACTIONS 766),
     (anon_sym_LBRACK, ACTIONS 768), (anon_sym_null, ACTIONS 105),
     (anon_sym_LPAREN, ACTIONS 770), (anon_sym_throw, ACTIONS 834), (anon_sym_LT, ACTIONS 111),
     (sym_increment_operator, ACTIONS 688), (sym_minus_operator, ACTIONS 690),
     (anon_sym_BANG, ACTIONS 119), (anon_sym_TILDE, ACTIONS 121), (anon_sym_await, ACTIONS 692),
     (anon_sym_switch, ACTIONS 412), (anon_sym_new, ACTIONS 155),
     (sym_const_builtin, ACTIONS 478), (anon_sym_this, ACTIONS 159),
     (anon_sym_super, ACTIONS 161), (anon_sym_SLASH_SLASH, ACTIONS 3),
     (anon_sym_SLASH_STAR, ACTIONS 5), (anon_sym_SLASH_SLASH_SLASH, ACTIONS 7),
     (sym__block_comment, ACTIONS 9), (sym__documentation_block_comment, ACTIONS 11)]"

lemma row_ok_286: "table_row_ok 286 ts_parse_table_286"
  by (simp add: row_simps ts_parse_table_286_def)

definition ts_parse_table_287 :: table_row where
  "ts_parse_table_287 = [
     (sym__bool_literal, STATE 989), (sym__numeric_literal, STATE 989),
     (sym__literal, STATE 962), (sym_symbol_literal, STATE 989), (sym_true, STATE 900),
     (sym_false, STATE 900), (sym_string_literal, STATE 989),
     (sym__string_literal_double_quotes, STATE 627),
     (sym__string_literal_single_quotes, STATE 627),
     (sym__string_literal_double_quotes_multiple, STATE 627),
     (sym__string_literal_single_quotes_multiple, STATE 627),
     (sym__raw_string_literal_double_quotes, STATE 627),
     (sym__raw_string_literal_single_quotes, STATE 627),
     (sym__raw_string_literal_double_quotes_multiple, STATE 627),
     (sym__raw_string_literal_single_quotes_multiple, STATE 627), (sym_list_literal, STATE 989),
     (sym_set_or_map_literal, STATE 989), (sym_null_literal, STATE 989),
     (sym_record_literal, STATE 989), (sym__record_literal_no_const, STATE 924),
     (sym__expression_without_cascade, STATE 950), (sym__real_expression, STATE 757),
     (sym_throw_expression_without_cascade, STATE 905),
     (sym_assignment_expression_without_cascade, STATE 905),
     (sym_assignable_expression, STATE 1949), (sym_function_expression, STATE 962),
     (sym_if_null_expression, STATE 996), (sym_conditional_expression, STATE 996),
     (sym_logical_or_expression, STATE 996), (sym_logical_and_expression, STATE 996),
     (sym_equality_expression, STATE 996), (sym_type_cast_expression, STATE 996),
     (sym_type_test_expression, STATE 996), (sym_relational_expression, STATE 996),
     (sym_bitwise_or_expression, STATE 996), (sym_bitwise_xor_expression, STATE 996),
     (sym_bitwise_and_expression, STATE 996), (sym_shift_expression, STATE 996),
     (sym_additive_expression, STATE 996), (sym_multiplicative_expression, STATE 996),
     (sym__unary_expression, STATE 1323), (sym_unary_expression, STATE 994),
     (sym__postfix_expression, STATE 994), (sym_postfix_expression, STATE 993),
     (sym_prefix_operator, STATE 421), (sym_negation_operator, STATE 1450),
     (sym__exclamation_operator, STATE 1451), (sym_tilde_operator, STATE 1357),
     (sym_await_expression, STATE 991), (sym_new_expression, STATE 962),
     (sym_const_object_expression, STATE 962), (sym__primary, STATE 648),
     (sym_parenthesized_expression, STATE 962), (sym_constructor_invocation, STATE 643),
     (sym_constructor_tearoff, STATE 962), (sym_type_arguments, STATE 3146),
     (sym_switch_expression, STATE 962), (sym_type_parameters, STATE 2932),
     (sym__type_name, STATE 2859), (sym__formal_parameter_part, STATE 2339),
     (sym_formal_parameter_list, STATE 2020), (sym__strict_formal_parameter_list, STATE 2016),
     (sym__new_builtin, STATE 2079), (sym_this, STATE 962), (sym_super, STATE 1339),
     (sym_comment, STATE 287), (sym_documentation_comment, STATE 287),
     (aux_sym_string_literal_repeat1, STATE 474), (sym_identifier, ACTIONS 764),
     (anon_sym_POUND, ACTIONS 73), (sym_decimal_integer_literal, ACTIONS 75),
     (sym_hex_integer_literal, ACTIONS 77), (sym_decimal_floating_point_literal, ACTIONS 75),
     (anon_sym_true, ACTIONS 79), (anon_sym_false, ACTIONS 81), (anon_sym_DQUOTE, ACTIONS 83),
     (anon_sym_SQUOTE, ACTIONS 85), (anon_sym_DQUOTE_DQUOTE_DQUOTE, ACTIONS 87),
     (anon_sym_SQUOTE_SQUOTE_SQUOTE, ACTIONS 89), (anon_sym_r_DQUOTE, ACTIONS 91),
     (anon_sym_r_SQUOTE, ACTIONS 93), (anon_sym_r_DQUOTE_DQUOTE_DQUOTE, ACTIONS 95),
     (anon_sym_r_SQUOTE_SQUOTE_SQUOTE, ACTIONS 97), (anon_sym_LBRACE, ACTIONS 766),
     (anon_sym_LBRACK, ACTIONS 768), (anon_sym_null, ACTIONS 105),
     (anon_sym_LPAREN, ACTIONS 770), (anon_sym_throw, ACTIONS 836), (anon_sym_LT, ACTIONS 111),
     (sym_increment_operator, ACTIONS 688), (sym_minus_operator, ACTIONS 690),
     (anon_sym_BANG, ACTIONS 119), (anon_sym_TILDE, ACTIONS 121), (anon_sym_await, ACTIONS 692),
     (anon_sym_switch, ACTIONS 412), (anon_sym_new, ACTIONS 155),
     (sym_const_builtin, ACTIONS 478), (anon_sym_this, ACTIONS 159),
     (anon_sym_super, ACTIONS 161), (anon_sym_SLASH_SLASH, ACTIONS 3),
     (anon_sym_SLASH_STAR, ACTIONS 5), (anon_sym_SLASH_SLASH_SLASH, ACTIONS 7),
     (sym__block_comment, ACTIONS 9), (sym__documentation_block_comment, ACTIONS 11)]"

lemma row_ok_287: "table_row_ok 287 ts_parse_table_287"
  by (simp add: row_simps ts_parse_table_287_def)

definition ts_parse_table_288 :: table_row where
  "ts_parse_table_288 = [
     (sym__bool_literal, STATE 989), (sym__numeric_literal, STATE 989),
     (sym__literal, STATE 962), (sym_symbol_literal, STATE 989), (sym_true, STATE 900),
     (sym_false, STATE 900), (sym_string_literal, STATE 989),
     (sym__string_literal_double_quotes, STATE 627),
     (sym__string_literal_single_quotes, STATE 627),
     (sym__string_literal_double_quotes_multiple, STATE 627),
     (sym__string_literal_single_quotes_multiple, STATE 627),
     (sym__raw_string_literal_double_quotes, STATE 627),
     (sym__raw_string_literal_single_quotes, STATE 627),
     (sym__raw_string_literal_double_quotes_multiple, STATE 627),
     (sym__raw_string_literal_single_quotes_multiple, STATE 627), (sym_list_literal, STATE 989),
     (sym_set_or_map_literal, STATE 989), (sym_null_literal, STATE 989),
     (sym_record_literal, STATE 989), (sym__record_literal_no_const, STATE 924),
     (sym__expression_without_cascade, STATE 935), (sym__real_expression, STATE 757),
     (sym_throw_expression_without_cascade, STATE 905),
     (sym_assignment_expression_without_cascade, STATE 905),
     (sym_assignable_expression, STATE 1949), (sym_function_expression, STATE 962),
     (sym_if_null_expression, STATE 996), (sym_conditional_expression, STATE 996),
     (sym_logical_or_expression, STATE 996), (sym_logical_and_expression, STATE 996),
     (sym_equality_expression, STATE 996), (sym_type_cast_expression, STATE 996),
     (sym_type_test_expression, STATE 996), (sym_relational_expression, STATE 996),
     (sym_bitwise_or_expression, STATE 996), (sym_bitwise_xor_expression, STATE 996),
     (sym_bitwise_and_expression, STATE 996), (sym_shift_expression, STATE 996),
     (sym_additive_expression, STATE 996), (sym_multiplicative_expression, STATE 996),
     (sym__unary_expression, STATE 1323), (sym_unary_expression, STATE 994),
     (sym__postfix_expression, STATE 994), (sym_postfix_expression, STATE 993),
     (sym_prefix_operator, STATE 421), (sym_negation_operator, STATE 1450),
     (sym__exclamation_operator, STATE 1451), (sym_tilde_operator, STATE 1357),
     (sym_await_expression, STATE 991), (sym_new_expression, STATE 962),
     (sym_const_object_expression, STATE 962), (sym__primary, STATE 648),
     (sym_parenthesized_expression, STATE 962), (sym_constructor_invocation, STATE 643),
     (sym_constructor_tearoff, STATE 962), (sym_type_arguments, STATE 3146),
     (sym_switch_expression, STATE 962), (sym_type_parameters, STATE 2932),
     (sym__type_name, STATE 2859), (sym__formal_parameter_part, STATE 2339),
     (sym_formal_parameter_list, STATE 2020), (sym__strict_formal_parameter_list, STATE 2016),
     (sym__new_builtin, STATE 2079), (sym_this, STATE 962), (sym_super, STATE 1339),
     (sym_comment, STATE 288), (sym_documentation_comment, STATE 288),
     (aux_sym_string_literal_repeat1, STATE 474), (sym_identifier, ACTIONS 764),
     (anon_sym_POUND, ACTIONS 73), (sym_decimal_integer_literal, ACTIONS 75),
     (sym_hex_integer_literal, ACTIONS 77), (sym_decimal_floating_point_literal, ACTIONS 75),
     (anon_sym_true, ACTIONS 79), (anon_sym_false, ACTIONS 81), (anon_sym_DQUOTE, ACTIONS 83),
     (anon_sym_SQUOTE, ACTIONS 85), (anon_sym_DQUOTE_DQUOTE_DQUOTE, ACTIONS 87),
     (anon_sym_SQUOTE_SQUOTE_SQUOTE, ACTIONS 89), (anon_sym_r_DQUOTE, ACTIONS 91),
     (anon_sym_r_SQUOTE, ACTIONS 93), (anon_sym_r_DQUOTE_DQUOTE_DQUOTE, ACTIONS 95),
     (anon_sym_r_SQUOTE_SQUOTE_SQUOTE, ACTIONS 97), (anon_sym_LBRACE, ACTIONS 766),
     (anon_sym_LBRACK, ACTIONS 768), (anon_sym_null, ACTIONS 105),
     (anon_sym_LPAREN, ACTIONS 770), (anon_sym_throw, ACTIONS 836), (anon_sym_LT, ACTIONS 111),
     (sym_increment_operator, ACTIONS 688), (sym_minus_operator, ACTIONS 690),
     (anon_sym_BANG, ACTIONS 119), (anon_sym_TILDE, ACTIONS 121), (anon_sym_await, ACTIONS 692),
     (anon_sym_switch, ACTIONS 412), (anon_sym_new, ACTIONS 155),
     (sym_const_builtin, ACTIONS 478), (anon_sym_this, ACTIONS 159),
     (anon_sym_super, ACTIONS 161), (anon_sym_SLASH_SLASH, ACTIONS 3),
     (anon_sym_SLASH_STAR, ACTIONS 5), (anon_sym_SLASH_SLASH_SLASH, ACTIONS 7),
     (sym__block_comment, ACTIONS 9), (sym__documentation_block_comment, ACTIONS 11)]"

lemma row_ok_288: "table_row_ok 288 ts_parse_table_288"
  by (simp add: row_simps ts_parse_table_288_def)

definition ts_parse_table_289 :: table_row where
  "ts_parse_table_289 = [
     (sym__bool_literal, STATE 1279), (sym__numeric_literal, STATE 1279),
     (sym__literal, STATE 1278), (sym_symbol_literal, STATE 1279), (sym_true, STATE 1275),
     (sym_false, STATE 1275), (sym_string_literal, STATE 1279),
     (sym__string_literal_double_quotes, STATE 799),
     (sym__string_literal_single_quotes, STATE 799),
     (sym__string_literal_double_quotes_multiple, STATE 799),
     (sym__string_literal_single_quotes_multiple, STATE 799),
     (sym__raw_string_literal_double_quotes, STATE 799),
     (sym__raw_string_literal_single_quotes, STATE 799),
     (sym__raw_string_literal_double_quotes_multiple, STATE 799),
     (sym__raw_string_literal_single_quotes_multiple, STATE 799), (sym_list_literal, STATE 1279),
     (sym_set_or_map_literal, STATE 1279), (sym_null_literal, STATE 1279),
     (sym_record_literal, STATE 1279), (sym__record_literal_no_const, STATE 1268),
     (sym__expression_without_cascade, STATE 3471), (sym__real_expression, STATE 754),
     (sym_throw_expression_without_cascade, STATE 1497),
     (sym_assignment_expression_without_cascade, STATE 1497),
     (sym_assignable_expression, STATE 1931), (sym_function_expression, STATE 1278),
     (sym_if_null_expression, STATE 1679), (sym_conditional_expression, STATE 1679),
     (sym_logical_or_expression, STATE 1679), (sym_logical_and_expression, STATE 1679),
     (sym_equality_expression, STATE 1679), (sym_type_cast_expression, STATE 1679),
     (sym_type_test_expression, STATE 1679), (sym_relational_expression, STATE 1679),
     (sym_bitwise_or_expression, STATE 1679), (sym_bitwise_xor_expression, STATE 1679),
     (sym_bitwise_and_expression, STATE 1679), (sym_shift_expression, STATE 1679),
     (sym_additive_expression, STATE 1679), (sym_multiplicative_expression, STATE 1679),
     (sym__unary_expression, STATE 1329), (sym_unary_expression, STATE 1480),
     (sym__postfix_expression, STATE 1480), (sym_postfix_expression, STATE 1481),
     (sym_prefix_operator, STATE 428), (sym_negation_operator, STATE 1450),
     (sym__exclamation_operator, STATE 1451), (sym_tilde_operator, STATE 1387),
     (sym_await_expression, STATE 1483), (sym_new_expression, STATE 1278),
     (sym_const_object_expression, STATE 1278), (sym__primary, STATE 716),
     (sym_parenthesized_expression, STATE 1278), (sym_constructor_invocation, STATE 717),
     (sym_constructor_tearoff, STATE 1278), (sym_type_arguments, STATE 3100),
     (sym_switch_expression, STATE 1278), (sym_type_parameters, STATE 2932),
     (sym__type_name, STATE 2949), (sym__formal_parameter_part, STATE 2342),
     (sym_formal_parameter_list, STATE 2020), (sym__strict_formal_parameter_list, STATE 2016),
     (sym__new_builtin, STATE 2091), (sym_this, STATE 1278), (sym_super, STATE 1335),
     (sym_comment, STATE 289), (sym_documentation_comment, STATE 289),
     (aux_sym_string_literal_repeat1, STATE 609), (sym_identifier, ACTIONS 774),
     (anon_sym_POUND, ACTIONS 776), (sym_decimal_integer_literal, ACTIONS 778),
     (sym_hex_integer_literal, ACTIONS 780), (sym_decimal_floating_point_literal, ACTIONS 778),
     (anon_sym_true, ACTIONS 782), (anon_sym_false, ACTIONS 784), (anon_sym_DQUOTE, ACTIONS 786),
     (anon_sym_SQUOTE, ACTIONS 788), (anon_sym_DQUOTE_DQUOTE_DQUOTE, ACTIONS 790),
     (anon_sym_SQUOTE_SQUOTE_SQUOTE, ACTIONS 792), (anon_sym_r_DQUOTE, ACTIONS 794),
     (anon_sym_r_SQUOTE, ACTIONS 796), (anon_sym_r_DQUOTE_DQUOTE_DQUOTE, ACTIONS 798),
     (anon_sym_r_SQUOTE_SQUOTE_SQUOTE, ACTIONS 800), (anon_sym_LBRACE, ACTIONS 802),
     (anon_sym_LBRACK, ACTIONS 804), (anon_sym_null, ACTIONS 806),
     (anon_sym_LPAREN, ACTIONS 808), (anon_sym_throw, ACTIONS 810), (anon_sym_LT, ACTIONS 111),
     (sym_increment_operator, ACTIONS 812), (sym_minus_operator, ACTIONS 814),
     (anon_sym_BANG, ACTIONS 119), (anon_sym_TILDE, ACTIONS 121), (anon_sym_await, ACTIONS 816),
     (anon_sym_switch, ACTIONS 818), (anon_sym_new, ACTIONS 155),
     (sym_const_builtin, ACTIONS 820), (anon_sym_this, ACTIONS 822),
     (anon_sym_super, ACTIONS 161), (anon_sym_SLASH_SLASH, ACTIONS 3),
     (anon_sym_SLASH_STAR, ACTIONS 5), (anon_sym_SLASH_SLASH_SLASH, ACTIONS 7),
     (sym__block_comment, ACTIONS 9), (sym__documentation_block_comment, ACTIONS 11)]"

lemma row_ok_289: "table_row_ok 289 ts_parse_table_289"
  by (simp add: row_simps ts_parse_table_289_def)

definition ts_parse_table_290 :: table_row where
  "ts_parse_table_290 = [
     (sym__bool_literal, STATE 989), (sym__numeric_literal, STATE 989),
     (sym__literal, STATE 962), (sym_symbol_literal, STATE 989), (sym_true, STATE 900),
     (sym_false, STATE 900), (sym_string_literal, STATE 989),
     (sym__string_literal_double_quotes, STATE 627),
     (sym__string_literal_single_quotes, STATE 627),
     (sym__string_literal_double_quotes_multiple, STATE 627),
     (sym__string_literal_single_quotes_multiple, STATE 627),
     (sym__raw_string_literal_double_quotes, STATE 627),
     (sym__raw_string_literal_single_quotes, STATE 627),
     (sym__raw_string_literal_double_quotes_multiple, STATE 627),
     (sym__raw_string_literal_single_quotes_multiple, STATE 627), (sym_list_literal, STATE 989),
     (sym_set_or_map_literal, STATE 989), (sym_null_literal, STATE 989),
     (sym_record_literal, STATE 989), (sym__record_literal_no_const, STATE 924),
     (sym__expression_without_cascade, STATE 935), (sym__real_expression, STATE 503),
     (sym_throw_expression_without_cascade, STATE 905),
     (sym_assignment_expression_without_cascade, STATE 905),
     (sym_assignable_expression, STATE 1943), (sym_function_expression, STATE 962),
     (sym_if_null_expression, STATE 996), (sym_conditional_expression, STATE 996),
     (sym_logical_or_expression, STATE 996), (sym_logical_and_expression, STATE 996),
     (sym_equality_expression, STATE 996), (sym_type_cast_expression, STATE 996),
     (sym_type_test_expression, STATE 996), (sym_relational_expression, STATE 996),
     (sym_bitwise_or_expression, STATE 996), (sym_bitwise_xor_expression, STATE 996),
     (sym_bitwise_and_expression, STATE 996), (sym_shift_expression, STATE 996),
     (sym_additive_expression, STATE 996), (sym_multiplicative_expression, STATE 996),
     (sym__unary_expression, STATE 787), (sym_unary_expression, STATE 994),
     (sym__postfix_expression, STATE 994), (sym_postfix_expression, STATE 993),
     (sym_prefix_operator, STATE 421), (sym_negation_operator, STATE 1450),
     (sym__exclamation_operator, STATE 1451), (sym_tilde_operator, STATE 1357),
     (sym_await_expression, STATE 991), (sym_new_expression, STATE 962),
     (sym_const_object_expression, STATE 962), (sym__primary, STATE 648),
     (sym_parenthesized_expression, STATE 962), (sym_constructor_invocation, STATE 643),
     (sym_constructor_tearoff, STATE 962), (sym_type_arguments, STATE 3146),
     (sym_switch_expression, STATE 962), (sym_type_parameters, STATE 2932),
     (sym__type_name, STATE 2859), (sym__formal_parameter_part, STATE 2339),
     (sym_formal_parameter_list, STATE 2020), (sym__strict_formal_parameter_list, STATE 2016),
     (sym__new_builtin, STATE 2079), (sym_this, STATE 962), (sym_super, STATE 1338),
     (sym_comment, STATE 290), (sym_documentation_comment, STATE 290),
     (aux_sym_string_literal_repeat1, STATE 474), (sym_identifier, ACTIONS 764),
     (anon_sym_POUND, ACTIONS 73), (sym_decimal_integer_literal, ACTIONS 75),
     (sym_hex_integer_literal, ACTIONS 77), (sym_decimal_floating_point_literal, ACTIONS 75),
     (anon_sym_true, ACTIONS 79), (anon_sym_false, ACTIONS 81), (anon_sym_DQUOTE, ACTIONS 83),
     (anon_sym_SQUOTE, ACTIONS 85), (anon_sym_DQUOTE_DQUOTE_DQUOTE, ACTIONS 87),
     (anon_sym_SQUOTE_SQUOTE_SQUOTE, ACTIONS 89), (anon_sym_r_DQUOTE, ACTIONS 91),
     (anon_sym_r_SQUOTE, ACTIONS 93), (anon_sym_r_DQUOTE_DQUOTE_DQUOTE, ACTIONS 95),
     (anon_sym_r_SQUOTE_SQUOTE_SQUOTE, ACTIONS 97), (anon_sym_LBRACE, ACTIONS 766),
     (anon_sym_LBRACK, ACTIONS 768), (anon_sym_null, ACTIONS 105),
     (anon_sym_LPAREN, ACTIONS 770), (anon_sym_throw, ACTIONS 834), (anon_sym_LT, ACTIONS 111),
     (sym_increment_operator, ACTIONS 688), (sym_minus_operator, ACTIONS 690),
     (anon_sym_BANG, ACTIONS 119), (anon_sym_TILDE, ACTIONS 121), (anon_sym_await, ACTIONS 692),
     (anon_sym_switch, ACTIONS 412), (anon_sym_new, ACTIONS 155),
     (sym_const_builtin, ACTIONS 478), (anon_sym_this, ACTIONS 159),
     (anon_sym_super, ACTIONS 161), (anon_sym_SLASH_SLASH, ACTIONS 3),
     (anon_sym_SLASH_STAR, ACTIONS 5), (anon_sym_SLASH_SLASH_SLASH, ACTIONS 7),
     (sym__block_comment, ACTIONS 9), (sym__documentation_block_comment, ACTIONS 11)]"

lemma row_ok_290: "table_row_ok 290 ts_parse_table_290"
  by (simp add: row_simps ts_parse_table_290_def)

definition ts_parse_table_291 :: table_row where
  "ts_parse_table_291 = [
     (sym__bool_literal, STATE 989), (sym__numeric_literal, STATE 989),
     (sym__literal, STATE 962), (sym_symbol_literal, STATE 989), (sym_true, STATE 900),
     (sym_false, STATE 900), (sym_string_literal, STATE 989),
     (sym__string_literal_double_quotes, STATE 627),
     (sym__string_literal_single_quotes, STATE 627),
     (sym__string_literal_double_quotes_multiple, STATE 627),
     (sym__string_literal_single_quotes_multiple, STATE 627),
     (sym__raw_string_literal_double_quotes, STATE 627),
     (sym__raw_string_literal_single_quotes, STATE 627),
     (sym__raw_string_literal_double_quotes_multiple, STATE 627),
     (sym__raw_string_literal_single_quotes_multiple, STATE 627), (sym_list_literal, STATE 989),
     (sym_set_or_map_literal, STATE 989), (sym_null_literal, STATE 989),
     (sym_record_literal, STATE 989), (sym__record_literal_no_const, STATE 924),
     (sym__expression_without_cascade, STATE 1485), (sym__real_expression, STATE 683),
     (sym_throw_expression_without_cascade, STATE 1497),
     (sym_assignment_expression_without_cascade, STATE 1497),
     (sym_assignable_expression, STATE 1936), (sym_function_expression, STATE 962),
     (sym_if_null_expression, STATE 1477), (sym_conditional_expression, STATE 1477),
     (sym_logical_or_expression, STATE 1477), (sym_logical_and_expression, STATE 1477),
     (sym_equality_expression, STATE 1477), (sym_type_cast_expression, STATE 1477),
     (sym_type_test_expression, STATE 1477), (sym_relational_expression, STATE 1477),
     (sym_bitwise_or_expression, STATE 1477), (sym_bitwise_xor_expression, STATE 1477),
     (sym_bitwise_and_expression, STATE 1477), (sym_shift_expression, STATE 1477),
     (sym_additive_expression, STATE 1477), (sym_multiplicative_expression, STATE 1477),
     (sym__unary_expression, STATE 1121), (sym_unary_expression, STATE 1303),
     (sym__postfix_expression, STATE 1303), (sym_postfix_expression, STATE 1301),
     (sym_prefix_operator, STATE 431), (sym_negation_operator, STATE 1450),
     (sym__exclamation_operator, STATE 1451), (sym_tilde_operator, STATE 1385),
     (sym_await_expression, STATE 1302), (sym_new_expression, STATE 962),
     (sym_const_object_expression, STATE 962), (sym__primary, STATE 668),
     (sym_parenthesized_expression, STATE 962), (sym_constructor_invocation, STATE 643),
     (sym_constructor_tearoff, STATE 962), (sym_type_arguments, STATE 3146),
     (sym_switch_expression, STATE 962), (sym_type_parameters, STATE 2932),
     (sym__type_name, STATE 2859), (sym__formal_parameter_part, STATE 2339),
     (sym_formal_parameter_list, STATE 2020), (sym__strict_formal_parameter_list, STATE 2016),
     (sym__new_builtin, STATE 2079), (sym_this, STATE 962), (sym_super, STATE 1337),
     (sym_comment, STATE 291), (sym_documentation_comment, STATE 291),
     (aux_sym_string_literal_repeat1, STATE 474), (sym_identifier, ACTIONS 764),
     (anon_sym_POUND, ACTIONS 73), (sym_decimal_integer_literal, ACTIONS 75),
     (sym_hex_integer_literal, ACTIONS 77), (sym_decimal_floating_point_literal, ACTIONS 75),
     (anon_sym_true, ACTIONS 79), (anon_sym_false, ACTIONS 81), (anon_sym_DQUOTE, ACTIONS 83),
     (anon_sym_SQUOTE, ACTIONS 85), (anon_sym_DQUOTE_DQUOTE_DQUOTE, ACTIONS 87),
     (anon_sym_SQUOTE_SQUOTE_SQUOTE, ACTIONS 89), (anon_sym_r_DQUOTE, ACTIONS 91),
     (anon_sym_r_SQUOTE, ACTIONS 93), (anon_sym_r_DQUOTE_DQUOTE_DQUOTE, ACTIONS 95),
     (anon_sym_r_SQUOTE_SQUOTE_SQUOTE, ACTIONS 97), (anon_sym_LBRACE, ACTIONS 766),
     (anon_sym_LBRACK, ACTIONS 768), (anon_sym_null, ACTIONS 105),
     (anon_sym_LPAREN, ACTIONS 770), (anon_sym_throw, ACTIONS 838), (anon_sym_LT, ACTIONS 111),
     (sym_increment_operator, ACTIONS 113), (sym_minus_operator, ACTIONS 117),
     (anon_sym_BANG, ACTIONS 119), (anon_sym_TILDE, ACTIONS 121), (anon_sym_await, ACTIONS 432),
     (anon_sym_switch, ACTIONS 412), (anon_sym_new, ACTIONS 155),
     (sym_const_builtin, ACTIONS 478), (anon_sym_this, ACTIONS 159),
     (anon_sym_super, ACTIONS 161), (anon_sym_SLASH_SLASH, ACTIONS 3),
     (anon_sym_SLASH_STAR, ACTIONS 5), (anon_sym_SLASH_SLASH_SLASH, ACTIONS 7),
     (sym__block_comment, ACTIONS 9), (sym__documentation_block_comment, ACTIONS 11)]"

lemma row_ok_291: "table_row_ok 291 ts_parse_table_291"
  by (simp add: row_simps ts_parse_table_291_def)

definition ts_parse_table_292 :: table_row where
  "ts_parse_table_292 = [
     (sym__bool_literal, STATE 1279), (sym__numeric_literal, STATE 1279),
     (sym__literal, STATE 1278), (sym_symbol_literal, STATE 1279), (sym_true, STATE 1275),
     (sym_false, STATE 1275), (sym_string_literal, STATE 1279),
     (sym__string_literal_double_quotes, STATE 799),
     (sym__string_literal_single_quotes, STATE 799),
     (sym__string_literal_double_quotes_multiple, STATE 799),
     (sym__string_literal_single_quotes_multiple, STATE 799),
     (sym__raw_string_literal_double_quotes, STATE 799),
     (sym__raw_string_literal_single_quotes, STATE 799),
     (sym__raw_string_literal_double_quotes_multiple, STATE 799),
     (sym__raw_string_literal_single_quotes_multiple, STATE 799), (sym_list_literal, STATE 1279),
     (sym_set_or_map_literal, STATE 1279), (sym_null_literal, STATE 1279),
     (sym_record_literal, STATE 1279), (sym__record_literal_no_const, STATE 1268),
     (sym__expression_without_cascade, STATE 1484), (sym__real_expression, STATE 754),
     (sym_throw_expression_without_cascade, STATE 1497),
     (sym_assignment_expression_without_cascade, STATE 1497),
     (sym_assignable_expression, STATE 1931), (sym_function_expression, STATE 1278),
     (sym_if_null_expression, STATE 1679), (sym_conditional_expression, STATE 1679),
     (sym_logical_or_expression, STATE 1679), (sym_logical_and_expression, STATE 1679),
     (sym_equality_expression, STATE 1679), (sym_type_cast_expression, STATE 1679),
     (sym_type_test_expression, STATE 1679), (sym_relational_expression, STATE 1679),
     (sym_bitwise_or_expression, STATE 1679), (sym_bitwise_xor_expression, STATE 1679),
     (sym_bitwise_and_expression, STATE 1679), (sym_shift_expression, STATE 1679),
     (sym_additive_expression, STATE 1679), (sym_multiplicative_expression, STATE 1679),
     (sym__unary_expression, STATE 1329), (sym_unary_expression, STATE 1480),
     (sym__postfix_expression, STATE 1480), (sym_postfix_expression, STATE 1481),
     (sym_prefix_operator, STATE 428), (sym_negation_operator, STATE 1450),
     (sym__exclamation_operator, STATE 1451), (sym_tilde_operator, STATE 1387),
     (sym_await_expression, STATE 1483), (sym_new_expression, STATE 1278),
     (sym_const_object_expression, STATE 1278), (sym__primary, STATE 716),
     (sym_parenthesized_expression, STATE 1278), (sym_constructor_invocation, STATE 717),
     (sym_constructor_tearoff, STATE 1278), (sym_type_arguments, STATE 3100),
     (sym_switch_expression, STATE 1278), (sym_type_parameters, STATE 2932),
     (sym__type_name, STATE 2949), (sym__formal_parameter_part, STATE 2342),
     (sym_formal_parameter_list, STATE 2020), (sym__strict_formal_parameter_list, STATE 2016),
     (sym__new_builtin, STATE 2091), (sym_this, STATE 1278), (sym_super, STATE 1335),
     (sym_comment, STATE 292), (sym_documentation_comment, STATE 292),
     (aux_sym_string_literal_repeat1, STATE 609), (sym_identifier, ACTIONS 774),
     (anon_sym_POUND, ACTIONS 776), (sym_decimal_integer_literal, ACTIONS 778),
     (sym_hex_integer_literal, ACTIONS 780), (sym_decimal_floating_point_literal, ACTIONS 778),
     (anon_sym_true, ACTIONS 782), (anon_sym_false, ACTIONS 784), (anon_sym_DQUOTE, ACTIONS 786),
     (anon_sym_SQUOTE, ACTIONS 788), (anon_sym_DQUOTE_DQUOTE_DQUOTE, ACTIONS 790),
     (anon_sym_SQUOTE_SQUOTE_SQUOTE, ACTIONS 792), (anon_sym_r_DQUOTE, ACTIONS 794),
     (anon_sym_r_SQUOTE, ACTIONS 796), (anon_sym_r_DQUOTE_DQUOTE_DQUOTE, ACTIONS 798),
     (anon_sym_r_SQUOTE_SQUOTE_SQUOTE, ACTIONS 800), (anon_sym_LBRACE, ACTIONS 802),
     (anon_sym_LBRACK, ACTIONS 804), (anon_sym_null, ACTIONS 806),
     (anon_sym_LPAREN, ACTIONS 808), (anon_sym_throw, ACTIONS 810), (anon_sym_LT, ACTIONS 111),
     (sym_increment_operator, ACTIONS 812), (sym_minus_operator, ACTIONS 814),
     (anon_sym_BANG, ACTIONS 119), (anon_sym_TILDE, ACTIONS 121), (anon_sym_await, ACTIONS 816),
     (anon_sym_switch, ACTIONS 818), (anon_sym_new, ACTIONS 155),
     (sym_const_builtin, ACTIONS 820), (anon_sym_this, ACTIONS 822),
     (anon_sym_super, ACTIONS 161), (anon_sym_SLASH_SLASH, ACTIONS 3),
     (anon_sym_SLASH_STAR, ACTIONS 5), (anon_sym_SLASH_SLASH_SLASH, ACTIONS 7),
     (sym__block_comment, ACTIONS 9), (sym__documentation_block_comment, ACTIONS 11)]"

lemma row_ok_292: "table_row_ok 292 ts_parse_table_292"
  by (simp add: row_simps ts_parse_table_292_def)

definition ts_parse_table_293 :: table_row where
  "ts_parse_table_293 = [
     (sym__bool_literal, STATE 989), (sym__numeric_literal, STATE 989),
     (sym__literal, STATE 962), (sym_symbol_literal, STATE 989), (sym_true, STATE 900),
     (sym_false, STATE 900), (sym_string_literal, STATE 989),
     (sym__string_literal_double_quotes, STATE 627),
     (sym__string_literal_single_quotes, STATE 627),
     (sym__string_literal_double_quotes_multiple, STATE 627),
     (sym__string_literal_single_quotes_multiple, STATE 627),
     (sym__raw_string_literal_double_quotes, STATE 627),
     (sym__raw_string_literal_single_quotes, STATE 627),
     (sym__raw_string_literal_double_quotes_multiple, STATE 627),
     (sym__raw_string_literal_single_quotes_multiple, STATE 627), (sym_list_literal, STATE 989),
     (sym_set_or_map_literal, STATE 989), (sym_null_literal, STATE 989),
     (sym_record_literal, STATE 989), (sym__record_literal_no_const, STATE 924),
     (sym__expression_without_cascade, STATE 990), (sym__real_expression, STATE 683),
     (sym_throw_expression_without_cascade, STATE 1497),
     (sym_assignment_expression_without_cascade, STATE 1497),
     (sym_assignable_expression, STATE 1936), (sym_function_expression, STATE 962),
     (sym_if_null_expression, STATE 1477), (sym_conditional_expression, STATE 1477),
     (sym_logical_or_expression, STATE 1477), (sym_logical_and_expression, STATE 1477),
     (sym_equality_expression, STATE 1477), (sym_type_cast_expression, STATE 1477),
     (sym_type_test_expression, STATE 1477), (sym_relational_expression, STATE 1477),
     (sym_bitwise_or_expression, STATE 1477), (sym_bitwise_xor_expression, STATE 1477),
     (sym_bitwise_and_expression, STATE 1477), (sym_shift_expression, STATE 1477),
     (sym_additive_expression, STATE 1477), (sym_multiplicative_expression, STATE 1477),
     (sym__unary_expression, STATE 1121), (sym_unary_expression, STATE 1303),
     (sym__postfix_expression, STATE 1303), (sym_postfix_expression, STATE 1301),
     (sym_prefix_operator, STATE 431), (sym_negation_operator, STATE 1450),
     (sym__exclamation_operator, STATE 1451), (sym_tilde_operator, STATE 1385),
     (sym_await_expression, STATE 1302), (sym_new_expression, STATE 962),
     (sym_const_object_expression, STATE 962), (sym__primary, STATE 668),
     (sym_parenthesized_expression, STATE 962), (sym_constructor_invocation, STATE 643),
     (sym_constructor_tearoff, STATE 962), (sym_type_arguments, STATE 3146),
     (sym_switch_expression, STATE 962), (sym_type_parameters, STATE 2932),
     (sym__type_name, STATE 2859), (sym__formal_parameter_part, STATE 2339),
     (sym_formal_parameter_list, STATE 2020), (sym__strict_formal_parameter_list, STATE 2016),
     (sym__new_builtin, STATE 2079), (sym_this, STATE 962), (sym_super, STATE 1337),
     (sym_comment, STATE 293), (sym_documentation_comment, STATE 293),
     (aux_sym_string_literal_repeat1, STATE 474), (sym_identifier, ACTIONS 764),
     (anon_sym_POUND, ACTIONS 73), (sym_decimal_integer_literal, ACTIONS 75),
     (sym_hex_integer_literal, ACTIONS 77), (sym_decimal_floating_point_literal, ACTIONS 75),
     (anon_sym_true, ACTIONS 79), (anon_sym_false, ACTIONS 81), (anon_sym_DQUOTE, ACTIONS 83),
     (anon_sym_SQUOTE, ACTIONS 85), (anon_sym_DQUOTE_DQUOTE_DQUOTE, ACTIONS 87),
     (anon_sym_SQUOTE_SQUOTE_SQUOTE, ACTIONS 89), (anon_sym_r_DQUOTE, ACTIONS 91),
     (anon_sym_r_SQUOTE, ACTIONS 93), (anon_sym_r_DQUOTE_DQUOTE_DQUOTE, ACTIONS 95),
     (anon_sym_r_SQUOTE_SQUOTE_SQUOTE, ACTIONS 97), (anon_sym_LBRACE, ACTIONS 766),
     (anon_sym_LBRACK, ACTIONS 768), (anon_sym_null, ACTIONS 105),
     (anon_sym_LPAREN, ACTIONS 770), (anon_sym_throw, ACTIONS 838), (anon_sym_LT, ACTIONS 111),
     (sym_increment_operator, ACTIONS 113), (sym_minus_operator, ACTIONS 117),
     (anon_sym_BANG, ACTIONS 119), (anon_sym_TILDE, ACTIONS 121), (anon_sym_await, ACTIONS 432),
     (anon_sym_switch, ACTIONS 412), (anon_sym_new, ACTIONS 155),
     (sym_const_builtin, ACTIONS 478), (anon_sym_this, ACTIONS 159),
     (anon_sym_super, ACTIONS 161), (anon_sym_SLASH_SLASH, ACTIONS 3),
     (anon_sym_SLASH_STAR, ACTIONS 5), (anon_sym_SLASH_SLASH_SLASH, ACTIONS 7),
     (sym__block_comment, ACTIONS 9), (sym__documentation_block_comment, ACTIONS 11)]"

lemma row_ok_293: "table_row_ok 293 ts_parse_table_293"
  by (simp add: row_simps ts_parse_table_293_def)

definition ts_parse_table_294 :: table_row where
  "ts_parse_table_294 = [
     (sym__bool_literal, STATE 1279), (sym__numeric_literal, STATE 1279),
     (sym__literal, STATE 1278), (sym_symbol_literal, STATE 1279), (sym_true, STATE 1275),
     (sym_false, STATE 1275), (sym_string_literal, STATE 1279),
     (sym__string_literal_double_quotes, STATE 799),
     (sym__string_literal_single_quotes, STATE 799),
     (sym__string_literal_double_quotes_multiple, STATE 799),
     (sym__string_literal_single_quotes_multiple, STATE 799),
     (sym__raw_string_literal_double_quotes, STATE 799),
     (sym__raw_string_literal_single_quotes, STATE 799),
     (sym__raw_string_literal_double_quotes_multiple, STATE 799),
     (sym__raw_string_literal_single_quotes_multiple, STATE 799), (sym_list_literal, STATE 1279),
     (sym_set_or_map_literal, STATE 1279), (sym_null_literal, STATE 1279),
     (sym_record_literal, STATE 1279), (sym__record_literal_no_const, STATE 1268),
     (sym__expression_without_cascade, STATE 3468), (sym__real_expression, STATE 754),
     (sym_throw_expression_without_cascade, STATE 1497),
     (sym_assignment_expression_without_cascade, STATE 1497),
     (sym_assignable_expression, STATE 1931), (sym_function_expression, STATE 1278),
     (sym_if_null_expression, STATE 1679), (sym_conditional_expression, STATE 1679),
     (sym_logical_or_expression, STATE 1679), (sym_logical_and_expression, STATE 1679),
     (sym_equality_expression, STATE 1679), (sym_type_cast_expression, STATE 1679),
     (sym_type_test_expression, STATE 1679), (sym_relational_expression, STATE 1679),
     (sym_bitwise_or_expression, STATE 1679), (sym_bitwise_xor_expression, STATE 1679),
     (sym_bitwise_and_expression, STATE 1679), (sym_shift_expression, STATE 1679),
     (sym_additive_expression, STATE 1679), (sym_multiplicative_expression, STATE 1679),
     (sym__unary_expression, STATE 1329), (sym_unary_expression, STATE 1480),
     (sym__postfix_expression, STATE 1480), (sym_postfix_expression, STATE 1481),
     (sym_prefix_operator, STATE 428), (sym_negation_operator, STATE 1450),
     (sym__exclamation_operator, STATE 1451), (sym_tilde_operator, STATE 1387),
     (sym_await_expression, STATE 1483), (sym_new_expression, STATE 1278),
     (sym_const_object_expression, STATE 1278), (sym__primary, STATE 716),
     (sym_parenthesized_expression, STATE 1278), (sym_constructor_invocation, STATE 717),
     (sym_constructor_tearoff, STATE 1278), (sym_type_arguments, STATE 3100),
     (sym_switch_expression, STATE 1278), (sym_type_parameters, STATE 2932),
     (sym__type_name, STATE 2949), (sym__formal_parameter_part, STATE 2342),
     (sym_formal_parameter_list, STATE 2020), (sym__strict_formal_parameter_list, STATE 2016),
     (sym__new_builtin, STATE 2091), (sym_this, STATE 1278), (sym_super, STATE 1335),
     (sym_comment, STATE 294), (sym_documentation_comment, STATE 294),
     (aux_sym_string_literal_repeat1, STATE 609), (sym_identifier, ACTIONS 774),
     (anon_sym_POUND, ACTIONS 776), (sym_decimal_integer_literal, ACTIONS 778),
     (sym_hex_integer_literal, ACTIONS 780), (sym_decimal_floating_point_literal, ACTIONS 778),
     (anon_sym_true, ACTIONS 782), (anon_sym_false, ACTIONS 784), (anon_sym_DQUOTE, ACTIONS 786),
     (anon_sym_SQUOTE, ACTIONS 788), (anon_sym_DQUOTE_DQUOTE_DQUOTE, ACTIONS 790),
     (anon_sym_SQUOTE_SQUOTE_SQUOTE, ACTIONS 792), (anon_sym_r_DQUOTE, ACTIONS 794),
     (anon_sym_r_SQUOTE, ACTIONS 796), (anon_sym_r_DQUOTE_DQUOTE_DQUOTE, ACTIONS 798),
     (anon_sym_r_SQUOTE_SQUOTE_SQUOTE, ACTIONS 800), (anon_sym_LBRACE, ACTIONS 802),
     (anon_sym_LBRACK, ACTIONS 804), (anon_sym_null, ACTIONS 806),
     (anon_sym_LPAREN, ACTIONS 808), (anon_sym_throw, ACTIONS 810), (anon_sym_LT, ACTIONS 111),
     (sym_increment_operator, ACTIONS 812), (sym_minus_operator, ACTIONS 814),
     (anon_sym_BANG, ACTIONS 119), (anon_sym_TILDE, ACTIONS 121), (anon_sym_await, ACTIONS 816),
     (anon_sym_switch, ACTIONS 818), (anon_sym_new, ACTIONS 155),
     (sym_const_builtin, ACTIONS 820), (anon_sym_this, ACTIONS 822),
     (anon_sym_super, ACTIONS 161), (anon_sym_SLASH_SLASH, ACTIONS 3),
     (anon_sym_SLASH_STAR, ACTIONS 5), (anon_sym_SLASH_SLASH_SLASH, ACTIONS 7),
     (sym__block_comment, ACTIONS 9), (sym__documentation_block_comment, ACTIONS 11)]"

lemma row_ok_294: "table_row_ok 294 ts_parse_table_294"
  by (simp add: row_simps ts_parse_table_294_def)

definition ts_parse_table_295 :: table_row where
  "ts_parse_table_295 = [
     (sym__bool_literal, STATE 989), (sym__numeric_literal, STATE 989),
     (sym__literal, STATE 962), (sym_symbol_literal, STATE 989), (sym_true, STATE 900),
     (sym_false, STATE 900), (sym_string_literal, STATE 989),
     (sym__string_literal_double_quotes, STATE 627),
     (sym__string_literal_single_quotes, STATE 627),
     (sym__string_literal_double_quotes_multiple, STATE 627),
     (sym__string_literal_single_quotes_multiple, STATE 627),
     (sym__raw_string_literal_double_quotes, STATE 627),
     (sym__raw_string_literal_single_quotes, STATE 627),
     (sym__raw_string_literal_double_quotes_multiple, STATE 627),
     (sym__raw_string_literal_single_quotes_multiple, STATE 627), (sym_list_literal, STATE 989),
     (sym_set_or_map_literal, STATE 989), (sym_null_literal, STATE 989),
     (sym_record_literal, STATE 989), (sym__record_literal_no_const, STATE 924),
     (sym__expression_without_cascade, STATE 949), (sym__real_expression, STATE 757),
     (sym_throw_expression_without_cascade, STATE 905),
     (sym_assignment_expression_without_cascade, STATE 905),
     (sym_assignable_expression, STATE 1949), (sym_function_expression, STATE 962),
     (sym_if_null_expression, STATE 996), (sym_conditional_expression, STATE 996),
     (sym_logical_or_expression, STATE 996), (sym_logical_and_expression, STATE 996),
     (sym_equality_expression, STATE 996), (sym_type_cast_expression, STATE 996),
     (sym_type_test_expression, STATE 996), (sym_relational_expression, STATE 996),
     (sym_bitwise_or_expression, STATE 996), (sym_bitwise_xor_expression, STATE 996),
     (sym_bitwise_and_expression, STATE 996), (sym_shift_expression, STATE 996),
     (sym_additive_expression, STATE 996), (sym_multiplicative_expression, STATE 996),
     (sym__unary_expression, STATE 1323), (sym_unary_expression, STATE 994),
     (sym__postfix_expression, STATE 994), (sym_postfix_expression, STATE 993),
     (sym_prefix_operator, STATE 421), (sym_negation_operator, STATE 1450),
     (sym__exclamation_operator, STATE 1451), (sym_tilde_operator, STATE 1357),
     (sym_await_expression, STATE 991), (sym_new_expression, STATE 962),
     (sym_const_object_expression, STATE 962), (sym__primary, STATE 648),
     (sym_parenthesized_expression, STATE 962), (sym_constructor_invocation, STATE 643),
     (sym_constructor_tearoff, STATE 962), (sym_type_arguments, STATE 3146),
     (sym_switch_expression, STATE 962), (sym_type_parameters, STATE 2932),
     (sym__type_name, STATE 2859), (sym__formal_parameter_part, STATE 2339),
     (sym_formal_parameter_list, STATE 2020), (sym__strict_formal_parameter_list, STATE 2016),
     (sym__new_builtin, STATE 2079), (sym_this, STATE 962), (sym_super, STATE 1339),
     (sym_comment, STATE 295), (sym_documentation_comment, STATE 295),
     (aux_sym_string_literal_repeat1, STATE 474), (sym_identifier, ACTIONS 764),
     (anon_sym_POUND, ACTIONS 73), (sym_decimal_integer_literal, ACTIONS 75),
     (sym_hex_integer_literal, ACTIONS 77), (sym_decimal_floating_point_literal, ACTIONS 75),
     (anon_sym_true, ACTIONS 79), (anon_sym_false, ACTIONS 81), (anon_sym_DQUOTE, ACTIONS 83),
     (anon_sym_SQUOTE, ACTIONS 85), (anon_sym_DQUOTE_DQUOTE_DQUOTE, ACTIONS 87),
     (anon_sym_SQUOTE_SQUOTE_SQUOTE, ACTIONS 89), (anon_sym_r_DQUOTE, ACTIONS 91),
     (anon_sym_r_SQUOTE, ACTIONS 93), (anon_sym_r_DQUOTE_DQUOTE_DQUOTE, ACTIONS 95),
     (anon_sym_r_SQUOTE_SQUOTE_SQUOTE, ACTIONS 97), (anon_sym_LBRACE, ACTIONS 766),
     (anon_sym_LBRACK, ACTIONS 768), (anon_sym_null, ACTIONS 105),
     (anon_sym_LPAREN, ACTIONS 770), (anon_sym_throw, ACTIONS 836), (anon_sym_LT, ACTIONS 111),
     (sym_increment_operator, ACTIONS 688), (sym_minus_operator, ACTIONS 690),
     (anon_sym_BANG, ACTIONS 119), (anon_sym_TILDE, ACTIONS 121), (anon_sym_await, ACTIONS 692),
     (anon_sym_switch, ACTIONS 412), (anon_sym_new, ACTIONS 155),
     (sym_const_builtin, ACTIONS 478), (anon_sym_this, ACTIONS 159),
     (anon_sym_super, ACTIONS 161), (anon_sym_SLASH_SLASH, ACTIONS 3),
     (anon_sym_SLASH_STAR, ACTIONS 5), (anon_sym_SLASH_SLASH_SLASH, ACTIONS 7),
     (sym__block_comment, ACTIONS 9), (sym__documentation_block_comment, ACTIONS 11)]"

lemma row_ok_295: "table_row_ok 295 ts_parse_table_295"
  by (simp add: row_simps ts_parse_table_295_def)

definition ts_parse_table_296 :: table_row where
  "ts_parse_table_296 = [
     (sym__bool_literal, STATE 1115), (sym__numeric_literal, STATE 1115),
     (sym__literal, STATE 1135), (sym_symbol_literal, STATE 1115), (sym_true, STATE 1165),
     (sym_false, STATE 1165), (sym_string_literal, STATE 1115),
     (sym__string_literal_double_quotes, STATE 729),
     (sym__string_literal_single_quotes, STATE 729),
     (sym__string_literal_double_quotes_multiple, STATE 729),
     (sym__string_literal_single_quotes_multiple, STATE 729),
     (sym__raw_string_literal_double_quotes, STATE 729),
     (sym__raw_string_literal_single_quotes, STATE 729),
     (sym__raw_string_literal_double_quotes_multiple, STATE 729),
     (sym__raw_string_literal_single_quotes_multiple, STATE 729), (sym_list_literal, STATE 1115),
     (sym_set_or_map_literal, STATE 1115), (sym_null_literal, STATE 1115),
     (sym_record_literal, STATE 1115), (sym__record_literal_no_const, STATE 1187),
     (sym__expression_without_cascade, STATE 1146), (sym__real_expression, STATE 554),
     (sym_throw_expression_without_cascade, STATE 1159),
     (sym_assignment_expression_without_cascade, STATE 1159),
     (sym_assignable_expression, STATE 1960), (sym_function_expression, STATE 1135),
     (sym_if_null_expression, STATE 1117), (sym_conditional_expression, STATE 1117),
     (sym_logical_or_expression, STATE 1117), (sym_logical_and_expression, STATE 1117),
     (sym_equality_expression, STATE 1117), (sym_type_cast_expression, STATE 1117),
     (sym_type_test_expression, STATE 1117), (sym_relational_expression, STATE 1117),
     (sym_bitwise_or_expression, STATE 1117), (sym_bitwise_xor_expression, STATE 1117),
     (sym_bitwise_and_expression, STATE 1117), (sym_shift_expression, STATE 1117),
     (sym_additive_expression, STATE 1117), (sym_multiplicative_expression, STATE 1117),
     (sym__unary_expression, STATE 902), (sym_unary_expression, STATE 1114),
     (sym__postfix_expression, STATE 1114), (sym_postfix_expression, STATE 1098),
     (sym_prefix_operator, STATE 417), (sym_negation_operator, STATE 1450),
     (sym__exclamation_operator, STATE 1451), (sym_tilde_operator, STATE 1359),
     (sym_await_expression, STATE 1093), (sym_new_expression, STATE 1135),
     (sym_const_object_expression, STATE 1135), (sym__primary, STATE 690),
     (sym_parenthesized_expression, STATE 1135), (sym_constructor_invocation, STATE 699),
     (sym_constructor_tearoff, STATE 1135), (sym_type_arguments, STATE 3081),
     (sym_switch_expression, STATE 1135), (sym_type_parameters, STATE 2932),
     (sym__type_name, STATE 2826), (sym__formal_parameter_part, STATE 2358),
     (sym_formal_parameter_list, STATE 2020), (sym__strict_formal_parameter_list, STATE 2016),
     (sym__new_builtin, STATE 2074), (sym_this, STATE 1135), (sym_super, STATE 1344),
     (sym_comment, STATE 296), (sym_documentation_comment, STATE 296),
     (aux_sym_string_literal_repeat1, STATE 595), (sym_identifier, ACTIONS 754),
     (anon_sym_POUND, ACTIONS 698), (sym_decimal_integer_literal, ACTIONS 700),
     (sym_hex_integer_literal, ACTIONS 702), (sym_decimal_floating_point_literal, ACTIONS 700),
     (anon_sym_true, ACTIONS 704), (anon_sym_false, ACTIONS 706), (anon_sym_DQUOTE, ACTIONS 708),
     (anon_sym_SQUOTE, ACTIONS 710), (anon_sym_DQUOTE_DQUOTE_DQUOTE, ACTIONS 712),
     (anon_sym_SQUOTE_SQUOTE_SQUOTE, ACTIONS 714), (anon_sym_r_DQUOTE, ACTIONS 716),
     (anon_sym_r_SQUOTE, ACTIONS 718), (anon_sym_r_DQUOTE_DQUOTE_DQUOTE, ACTIONS 720),
     (anon_sym_r_SQUOTE_SQUOTE_SQUOTE, ACTIONS 722), (anon_sym_LBRACE, ACTIONS 756),
     (anon_sym_LBRACK, ACTIONS 758), (anon_sym_null, ACTIONS 728),
     (anon_sym_LPAREN, ACTIONS 760), (anon_sym_throw, ACTIONS 762), (anon_sym_LT, ACTIONS 111),
     (sym_increment_operator, ACTIONS 734), (sym_minus_operator, ACTIONS 736),
     (anon_sym_BANG, ACTIONS 119), (anon_sym_TILDE, ACTIONS 121), (anon_sym_await, ACTIONS 738),
     (anon_sym_switch, ACTIONS 740), (anon_sym_new, ACTIONS 155),
     (sym_const_builtin, ACTIONS 744), (anon_sym_this, ACTIONS 746),
     (anon_sym_super, ACTIONS 161), (anon_sym_SLASH_SLASH, ACTIONS 3),
     (anon_sym_SLASH_STAR, ACTIONS 5), (anon_sym_SLASH_SLASH_SLASH, ACTIONS 7),
     (sym__block_comment, ACTIONS 9), (sym__documentation_block_comment, ACTIONS 11)]"

lemma row_ok_296: "table_row_ok 296 ts_parse_table_296"
  by (simp add: row_simps ts_parse_table_296_def)

definition ts_parse_table_297 :: table_row where
  "ts_parse_table_297 = [
     (sym__bool_literal, STATE 1115), (sym__numeric_literal, STATE 1115),
     (sym__literal, STATE 1135), (sym_symbol_literal, STATE 1115), (sym_true, STATE 1165),
     (sym_false, STATE 1165), (sym_string_literal, STATE 1115),
     (sym__string_literal_double_quotes, STATE 729),
     (sym__string_literal_single_quotes, STATE 729),
     (sym__string_literal_double_quotes_multiple, STATE 729),
     (sym__string_literal_single_quotes_multiple, STATE 729),
     (sym__raw_string_literal_double_quotes, STATE 729),
     (sym__raw_string_literal_single_quotes, STATE 729),
     (sym__raw_string_literal_double_quotes_multiple, STATE 729),
     (sym__raw_string_literal_single_quotes_multiple, STATE 729), (sym_list_literal, STATE 1115),
     (sym_set_or_map_literal, STATE 1115), (sym_null_literal, STATE 1115),
     (sym_record_literal, STATE 1115), (sym__record_literal_no_const, STATE 1187),
     (sym__expression_without_cascade, STATE 1968), (sym__real_expression, STATE 724),
     (sym_throw_expression_without_cascade, STATE 1964),
     (sym_assignment_expression_without_cascade, STATE 1964),
     (sym_assignable_expression, STATE 1948), (sym_function_expression, STATE 1135),
     (sym_if_null_expression, STATE 1609), (sym_conditional_expression, STATE 1609),
     (sym_logical_or_expression, STATE 1609), (sym_logical_and_expression, STATE 1609),
     (sym_equality_expression, STATE 1609), (sym_type_cast_expression, STATE 1609),
     (sym_type_test_expression, STATE 1609), (sym_relational_expression, STATE 1609),
     (sym_bitwise_or_expression, STATE 1609), (sym_bitwise_xor_expression, STATE 1609),
     (sym_bitwise_and_expression, STATE 1609), (sym_shift_expression, STATE 1609),
     (sym_additive_expression, STATE 1609), (sym_multiplicative_expression, STATE 1609),
     (sym__unary_expression, STATE 1260), (sym_unary_expression, STATE 1391),
     (sym__postfix_expression, STATE 1391), (sym_postfix_expression, STATE 1390),
     (sym_prefix_operator, STATE 432), (sym_negation_operator, STATE 1450),
     (sym__exclamation_operator, STATE 1451), (sym_tilde_operator, STATE 1394),
     (sym_await_expression, STATE 1389), (sym_new_expression, STATE 1135),
     (sym_const_object_expression, STATE 1135), (sym__primary, STATE 703),
     (sym_parenthesized_expression, STATE 1135), (sym_constructor_invocation, STATE 699),
     (sym_constructor_tearoff, STATE 1135), (sym_type_arguments, STATE 3081),
     (sym_switch_expression, STATE 1135), (sym_type_parameters, STATE 2932),
     (sym__type_name, STATE 2826), (sym__formal_parameter_part, STATE 2358),
     (sym_formal_parameter_list, STATE 2020), (sym__strict_formal_parameter_list, STATE 2016),
     (sym__new_builtin, STATE 2074), (sym_this, STATE 1135), (sym_super, STATE 1345),
     (sym_comment, STATE 297), (sym_documentation_comment, STATE 297),
     (aux_sym_string_literal_repeat1, STATE 595), (sym_identifier, ACTIONS 754),
     (anon_sym_POUND, ACTIONS 698), (sym_decimal_integer_literal, ACTIONS 700),
     (sym_hex_integer_literal, ACTIONS 702), (sym_decimal_floating_point_literal, ACTIONS 700),
     (anon_sym_true, ACTIONS 704), (anon_sym_false, ACTIONS 706), (anon_sym_DQUOTE, ACTIONS 708),
     (anon_sym_SQUOTE, ACTIONS 710), (anon_sym_DQUOTE_DQUOTE_DQUOTE, ACTIONS 712),
     (anon_sym_SQUOTE_SQUOTE_SQUOTE, ACTIONS 714), (anon_sym_r_DQUOTE, ACTIONS 716),
     (anon_sym_r_SQUOTE, ACTIONS 718), (anon_sym_r_DQUOTE_DQUOTE_DQUOTE, ACTIONS 720),
     (anon_sym_r_SQUOTE_SQUOTE_SQUOTE, ACTIONS 722), (anon_sym_LBRACE, ACTIONS 756),
     (anon_sym_LBRACK, ACTIONS 758), (anon_sym_null, ACTIONS 728),
     (anon_sym_LPAREN, ACTIONS 760), (anon_sym_throw, ACTIONS 826), (anon_sym_LT, ACTIONS 111),
     (sym_increment_operator, ACTIONS 828), (sym_minus_operator, ACTIONS 830),
     (anon_sym_BANG, ACTIONS 119), (anon_sym_TILDE, ACTIONS 121), (anon_sym_await, ACTIONS 832),
     (anon_sym_switch, ACTIONS 740), (anon_sym_new, ACTIONS 155),
     (sym_const_builtin, ACTIONS 744), (anon_sym_this, ACTIONS 746),
     (anon_sym_super, ACTIONS 161), (anon_sym_SLASH_SLASH, ACTIONS 3),
     (anon_sym_SLASH_STAR, ACTIONS 5), (anon_sym_SLASH_SLASH_SLASH, ACTIONS 7),
     (sym__block_comment, ACTIONS 9), (sym__documentation_block_comment, ACTIONS 11)]"

lemma row_ok_297: "table_row_ok 297 ts_parse_table_297"
  by (simp add: row_simps ts_parse_table_297_def)

definition ts_parse_table_298 :: table_row where
  "ts_parse_table_298 = [
     (sym__bool_literal, STATE 989), (sym__numeric_literal, STATE 989),
     (sym__literal, STATE 962), (sym_symbol_literal, STATE 989), (sym_true, STATE 900),
     (sym_false, STATE 900), (sym_string_literal, STATE 989),
     (sym__string_literal_double_quotes, STATE 627),
     (sym__string_literal_single_quotes, STATE 627),
     (sym__string_literal_double_quotes_multiple, STATE 627),
     (sym__string_literal_single_quotes_multiple, STATE 627),
     (sym__raw_string_literal_double_quotes, STATE 627),
     (sym__raw_string_literal_single_quotes, STATE 627),
     (sym__raw_string_literal_double_quotes_multiple, STATE 627),
     (sym__raw_string_literal_single_quotes_multiple, STATE 627), (sym_list_literal, STATE 989),
     (sym_set_or_map_literal, STATE 989), (sym_null_literal, STATE 989),
     (sym_record_literal, STATE 989), (sym__record_literal_no_const, STATE 924),
     (sym__expression_without_cascade, STATE 990), (sym__real_expression, STATE 503),
     (sym_throw_expression_without_cascade, STATE 905),
     (sym_assignment_expression_without_cascade, STATE 905),
     (sym_assignable_expression, STATE 1943), (sym_function_expression, STATE 962),
     (sym_if_null_expression, STATE 996), (sym_conditional_expression, STATE 996),
     (sym_logical_or_expression, STATE 996), (sym_logical_and_expression, STATE 996),
     (sym_equality_expression, STATE 996), (sym_type_cast_expression, STATE 996),
     (sym_type_test_expression, STATE 996), (sym_relational_expression, STATE 996),
     (sym_bitwise_or_expression, STATE 996), (sym_bitwise_xor_expression, STATE 996),
     (sym_bitwise_and_expression, STATE 996), (sym_shift_expression, STATE 996),
     (sym_additive_expression, STATE 996), (sym_multiplicative_expression, STATE 996),
     (sym__unary_expression, STATE 787), (sym_unary_expression, STATE 994),
     (sym__postfix_expression, STATE 994), (sym_postfix_expression, STATE 993),
     (sym_prefix_operator, STATE 421), (sym_negation_operator, STATE 1450),
     (sym__exclamation_operator, STATE 1451), (sym_tilde_operator, STATE 1357),
     (sym_await_expression, STATE 991), (sym_new_expression, STATE 962),
     (sym_const_object_expression, STATE 962), (sym__primary, STATE 648),
     (sym_parenthesized_expression, STATE 962), (sym_constructor_invocation, STATE 643),
     (sym_constructor_tearoff, STATE 962), (sym_type_arguments, STATE 3146),
     (sym_switch_expression, STATE 962), (sym_type_parameters, STATE 2932),
     (sym__type_name, STATE 2859), (sym__formal_parameter_part, STATE 2339),
     (sym_formal_parameter_list, STATE 2020), (sym__strict_formal_parameter_list, STATE 2016),
     (sym__new_builtin, STATE 2079), (sym_this, STATE 962), (sym_super, STATE 1338),
     (sym_comment, STATE 298), (sym_documentation_comment, STATE 298),
     (aux_sym_string_literal_repeat1, STATE 474), (sym_identifier, ACTIONS 764),
     (anon_sym_POUND, ACTIONS 73), (sym_decimal_integer_literal, ACTIONS 75),
     (sym_hex_integer_literal, ACTIONS 77), (sym_decimal_floating_point_literal, ACTIONS 75),
     (anon_sym_true, ACTIONS 79), (anon_sym_false, ACTIONS 81), (anon_sym_DQUOTE, ACTIONS 83),
     (anon_sym_SQUOTE, ACTIONS 85), (anon_sym_DQUOTE_DQUOTE_DQUOTE, ACTIONS 87),
     (anon_sym_SQUOTE_SQUOTE_SQUOTE, ACTIONS 89), (anon_sym_r_DQUOTE, ACTIONS 91),
     (anon_sym_r_SQUOTE, ACTIONS 93), (anon_sym_r_DQUOTE_DQUOTE_DQUOTE, ACTIONS 95),
     (anon_sym_r_SQUOTE_SQUOTE_SQUOTE, ACTIONS 97), (anon_sym_LBRACE, ACTIONS 766),
     (anon_sym_LBRACK, ACTIONS 768), (anon_sym_null, ACTIONS 105),
     (anon_sym_LPAREN, ACTIONS 770), (anon_sym_throw, ACTIONS 834), (anon_sym_LT, ACTIONS 111),
     (sym_increment_operator, ACTIONS 688), (sym_minus_operator, ACTIONS 690),
     (anon_sym_BANG, ACTIONS 119), (anon_sym_TILDE, ACTIONS 121), (anon_sym_await, ACTIONS 692),
     (anon_sym_switch, ACTIONS 412), (anon_sym_new, ACTIONS 155),
     (sym_const_builtin, ACTIONS 478), (anon_sym_this, ACTIONS 159),
     (anon_sym_super, ACTIONS 161), (anon_sym_SLASH_SLASH, ACTIONS 3),
     (anon_sym_SLASH_STAR, ACTIONS 5), (anon_sym_SLASH_SLASH_SLASH, ACTIONS 7),
     (sym__block_comment, ACTIONS 9), (sym__documentation_block_comment, ACTIONS 11)]"

lemma row_ok_298: "table_row_ok 298 ts_parse_table_298"
  by (simp add: row_simps ts_parse_table_298_def)

definition ts_parse_table_299 :: table_row where
  "ts_parse_table_299 = [
     (sym__bool_literal, STATE 1115), (sym__numeric_literal, STATE 1115),
     (sym__literal, STATE 1135), (sym_symbol_literal, STATE 1115), (sym_true, STATE 1165),
     (sym_false, STATE 1165), (sym_string_literal, STATE 1115),
     (sym__string_literal_double_quotes, STATE 729),
     (sym__string_literal_single_quotes, STATE 729),
     (sym__string_literal_double_quotes_multiple, STATE 729),
     (sym__string_literal_single_quotes_multiple, STATE 729),
     (sym__raw_string_literal_double_quotes, STATE 729),
     (sym__raw_string_literal_single_quotes, STATE 729),
     (sym__raw_string_literal_double_quotes_multiple, STATE 729),
     (sym__raw_string_literal_single_quotes_multiple, STATE 729), (sym_list_literal, STATE 1115),
     (sym_set_or_map_literal, STATE 1115), (sym_null_literal, STATE 1115),
     (sym_record_literal, STATE 1115), (sym__record_literal_no_const, STATE 1187),
     (sym__expression_without_cascade, STATE 1596), (sym__real_expression, STATE 724),
     (sym_throw_expression_without_cascade, STATE 1573),
     (sym_assignment_expression_without_cascade, STATE 1573),
     (sym_assignable_expression, STATE 1939), (sym_function_expression, STATE 1135),
     (sym_if_null_expression, STATE 1609), (sym_conditional_expression, STATE 1609),
     (sym_logical_or_expression, STATE 1609), (sym_logical_and_expression, STATE 1609),
     (sym_equality_expression, STATE 1609), (sym_type_cast_expression, STATE 1609),
     (sym_type_test_expression, STATE 1609), (sym_relational_expression, STATE 1609),
     (sym_bitwise_or_expression, STATE 1609), (sym_bitwise_xor_expression, STATE 1609),
     (sym_bitwise_and_expression, STATE 1609), (sym_shift_expression, STATE 1609),
     (sym_additive_expression, STATE 1609), (sym_multiplicative_expression, STATE 1609),
     (sym__unary_expression, STATE 1260), (sym_unary_expression, STATE 1391),
     (sym__postfix_expression, STATE 1391), (sym_postfix_expression, STATE 1390),
     (sym_prefix_operator, STATE 432), (sym_negation_operator, STATE 1450),
     (sym__exclamation_operator, STATE 1451), (sym_tilde_operator, STATE 1394),
     (sym_await_expression, STATE 1389), (sym_new_expression, STATE 1135),
     (sym_const_object_expression, STATE 1135), (sym__primary, STATE 703),
     (sym_parenthesized_expression, STATE 1135), (sym_constructor_invocation, STATE 699),
     (sym_constructor_tearoff, STATE 1135), (sym_type_arguments, STATE 3081),
     (sym_switch_expression, STATE 1135), (sym_type_parameters, STATE 2932),
     (sym__type_name, STATE 2826), (sym__formal_parameter_part, STATE 2358),
     (sym_formal_parameter_list, STATE 2020), (sym__strict_formal_parameter_list, STATE 2016),
     (sym__new_builtin, STATE 2074), (sym_this, STATE 1135), (sym_super, STATE 1345),
     (sym_comment, STATE 299), (sym_documentation_comment, STATE 299),
     (aux_sym_string_literal_repeat1, STATE 595), (sym_identifier, ACTIONS 754),
     (anon_sym_POUND, ACTIONS 698), (sym_decimal_integer_literal, ACTIONS 700),
     (sym_hex_integer_literal, ACTIONS 702), (sym_decimal_floating_point_literal, ACTIONS 700),
     (anon_sym_true, ACTIONS 704), (anon_sym_false, ACTIONS 706), (anon_sym_DQUOTE, ACTIONS 708),
     (anon_sym_SQUOTE, ACTIONS 710), (anon_sym_DQUOTE_DQUOTE_DQUOTE, ACTIONS 712),
     (anon_sym_SQUOTE_SQUOTE_SQUOTE, ACTIONS 714), (anon_sym_r_DQUOTE, ACTIONS 716),
     (anon_sym_r_SQUOTE, ACTIONS 718), (anon_sym_r_DQUOTE_DQUOTE_DQUOTE, ACTIONS 720),
     (anon_sym_r_SQUOTE_SQUOTE_SQUOTE, ACTIONS 722), (anon_sym_LBRACE, ACTIONS 756),
     (anon_sym_LBRACK, ACTIONS 758), (anon_sym_null, ACTIONS 728),
     (anon_sym_LPAREN, ACTIONS 760), (anon_sym_throw, ACTIONS 840), (anon_sym_LT, ACTIONS 111),
     (sym_increment_operator, ACTIONS 828), (sym_minus_operator, ACTIONS 830),
     (anon_sym_BANG, ACTIONS 119), (anon_sym_TILDE, ACTIONS 121), (anon_sym_await, ACTIONS 832),
     (anon_sym_switch, ACTIONS 740), (anon_sym_new, ACTIONS 155),
     (sym_const_builtin, ACTIONS 744), (anon_sym_this, ACTIONS 746),
     (anon_sym_super, ACTIONS 161), (anon_sym_SLASH_SLASH, ACTIONS 3),
     (anon_sym_SLASH_STAR, ACTIONS 5), (anon_sym_SLASH_SLASH_SLASH, ACTIONS 7),
     (sym__block_comment, ACTIONS 9), (sym__documentation_block_comment, ACTIONS 11)]"

lemma row_ok_299: "table_row_ok 299 ts_parse_table_299"
  by (simp add: row_simps ts_parse_table_299_def)

definition ts_parse_table_300 :: table_row where
  "ts_parse_table_300 = [
     (sym__bool_literal, STATE 1115), (sym__numeric_literal, STATE 1115),
     (sym__literal, STATE 1135), (sym_symbol_literal, STATE 1115), (sym_true, STATE 1165),
     (sym_false, STATE 1165), (sym_string_literal, STATE 1115),
     (sym__string_literal_double_quotes, STATE 729),
     (sym__string_literal_single_quotes, STATE 729),
     (sym__string_literal_double_quotes_multiple, STATE 729),
     (sym__string_literal_single_quotes_multiple, STATE 729),
     (sym__raw_string_literal_double_quotes, STATE 729),
     (sym__raw_string_literal_single_quotes, STATE 729),
     (sym__raw_string_literal_double_quotes_multiple, STATE 729),
     (sym__raw_string_literal_single_quotes_multiple, STATE 729), (sym_list_literal, STATE 1115),
     (sym_set_or_map_literal, STATE 1115), (sym_null_literal, STATE 1115),
     (sym_record_literal, STATE 1115), (sym__record_literal_no_const, STATE 1187),
     (sym__expression_without_cascade, STATE 1578), (sym__real_expression, STATE 724),
     (sym_throw_expression_without_cascade, STATE 1573),
     (sym_assignment_expression_without_cascade, STATE 1573),
     (sym_assignable_expression, STATE 1939), (sym_function_expression, STATE 1135),
     (sym_if_null_expression, STATE 1609), (sym_conditional_expression, STATE 1609),
     (sym_logical_or_expression, STATE 1609), (sym_logical_and_expression, STATE 1609),
     (sym_equality_expression, STATE 1609), (sym_type_cast_expression, STATE 1609),
     (sym_type_test_expression, STATE 1609), (sym_relational_expression, STATE 1609),
     (sym_bitwise_or_expression, STATE 1609), (sym_bitwise_xor_expression, STATE 1609),
     (sym_bitwise_and_expression, STATE 1609), (sym_shift_expression, STATE 1609),
     (sym_additive_expression, STATE 1609), (sym_multiplicative_expression, STATE 1609),
     (sym__unary_expression, STATE 1260), (sym_unary_expression, STATE 1391),
     (sym__postfix_expression, STATE 1391), (sym_postfix_expression, STATE 1390),
     (sym_prefix_operator, STATE 432), (sym_negation_operator, STATE 1450),
     (sym__exclamation_operator, STATE 1451), (sym_tilde_operator, STATE 1394),
     (sym_await_expression, STATE 1389), (sym_new_expression, STATE 1135),
     (sym_const_object_expression, STATE 1135), (sym__primary, STATE 703),
     (sym_parenthesized_expression, STATE 1135), (sym_constructor_invocation, STATE 699),
     (sym_constructor_tearoff, STATE 1135), (sym_type_arguments, STATE 3081),
     (sym_switch_expression, STATE 1135), (sym_type_parameters, STATE 2932),
     (sym__type_name, STATE 2826), (sym__formal_parameter_part, STATE 2358),
     (sym_formal_parameter_list, STATE 2020), (sym__strict_formal_parameter_list, STATE 2016),
     (sym__new_builtin, STATE 2074), (sym_this, STATE 1135), (sym_super, STATE 1345),
     (sym_comment, STATE 300), (sym_documentation_comment, STATE 300),
     (aux_sym_string_literal_repeat1, STATE 595), (sym_identifier, ACTIONS 754),
     (anon_sym_POUND, ACTIONS 698), (sym_decimal_integer_literal, ACTIONS 700),
     (sym_hex_integer_literal, ACTIONS 702), (sym_decimal_floating_point_literal, ACTIONS 700),
     (anon_sym_true, ACTIONS 704), (anon_sym_false, ACTIONS 706), (anon_sym_DQUOTE, ACTIONS 708),
     (anon_sym_SQUOTE, ACTIONS 710), (anon_sym_DQUOTE_DQUOTE_DQUOTE, ACTIONS 712),
     (anon_sym_SQUOTE_SQUOTE_SQUOTE, ACTIONS 714), (anon_sym_r_DQUOTE, ACTIONS 716),
     (anon_sym_r_SQUOTE, ACTIONS 718), (anon_sym_r_DQUOTE_DQUOTE_DQUOTE, ACTIONS 720),
     (anon_sym_r_SQUOTE_SQUOTE_SQUOTE, ACTIONS 722), (anon_sym_LBRACE, ACTIONS 756),
     (anon_sym_LBRACK, ACTIONS 758), (anon_sym_null, ACTIONS 728),
     (anon_sym_LPAREN, ACTIONS 760), (anon_sym_throw, ACTIONS 840), (anon_sym_LT, ACTIONS 111),
     (sym_increment_operator, ACTIONS 828), (sym_minus_operator, ACTIONS 830),
     (anon_sym_BANG, ACTIONS 119), (anon_sym_TILDE, ACTIONS 121), (anon_sym_await, ACTIONS 832),
     (anon_sym_switch, ACTIONS 740), (anon_sym_new, ACTIONS 155),
     (sym_const_builtin, ACTIONS 744), (anon_sym_this, ACTIONS 746),
     (anon_sym_super, ACTIONS 161), (anon_sym_SLASH_SLASH, ACTIONS 3),
     (anon_sym_SLASH_STAR, ACTIONS 5), (anon_sym_SLASH_SLASH_SLASH, ACTIONS 7),
     (sym__block_comment, ACTIONS 9), (sym__documentation_block_comment, ACTIONS 11)]"

lemma row_ok_300: "table_row_ok 300 ts_parse_table_300"
  by (simp add: row_simps ts_parse_table_300_def)

definition ts_parse_table_301 :: table_row where
  "ts_parse_table_301 = [
     (sym__bool_literal, STATE 989), (sym__numeric_literal, STATE 989),
     (sym__literal, STATE 962), (sym_symbol_literal, STATE 989), (sym_true, STATE 900),
     (sym_false, STATE 900), (sym_string_literal, STATE 989),
     (sym__string_literal_double_quotes, STATE 627),
     (sym__string_literal_single_quotes, STATE 627),
     (sym__string_literal_double_quotes_multiple, STATE 627),
     (sym__string_literal_single_quotes_multiple, STATE 627),
     (sym__raw_string_literal_double_quotes, STATE 627),
     (sym__raw_string_literal_single_quotes, STATE 627),
     (sym__raw_string_literal_double_quotes_multiple, STATE 627),
     (sym__raw_string_literal_single_quotes_multiple, STATE 627), (sym_list_literal, STATE 989),
     (sym_set_or_map_literal, STATE 989), (sym_null_literal, STATE 989),
     (sym_record_literal, STATE 989), (sym__record_literal_no_const, STATE 924),
     (sym__expression_without_cascade, STATE 1967), (sym__real_expression, STATE 757),
     (sym_throw_expression_without_cascade, STATE 1964),
     (sym_assignment_expression_without_cascade, STATE 1964),
     (sym_assignable_expression, STATE 1938), (sym_function_expression, STATE 962),
     (sym_if_null_expression, STATE 996), (sym_conditional_expression, STATE 996),
     (sym_logical_or_expression, STATE 996), (sym_logical_and_expression, STATE 996),
     (sym_equality_expression, STATE 996), (sym_type_cast_expression, STATE 996),
     (sym_type_test_expression, STATE 996), (sym_relational_expression, STATE 996),
     (sym_bitwise_or_expression, STATE 996), (sym_bitwise_xor_expression, STATE 996),
     (sym_bitwise_and_expression, STATE 996), (sym_shift_expression, STATE 996),
     (sym_additive_expression, STATE 996), (sym_multiplicative_expression, STATE 996),
     (sym__unary_expression, STATE 1323), (sym_unary_expression, STATE 994),
     (sym__postfix_expression, STATE 994), (sym_postfix_expression, STATE 993),
     (sym_prefix_operator, STATE 421), (sym_negation_operator, STATE 1450),
     (sym__exclamation_operator, STATE 1451), (sym_tilde_operator, STATE 1357),
     (sym_await_expression, STATE 991), (sym_new_expression, STATE 962),
     (sym_const_object_expression, STATE 962), (sym__primary, STATE 648),
     (sym_parenthesized_expression, STATE 962), (sym_constructor_invocation, STATE 643),
     (sym_constructor_tearoff, STATE 962), (sym_type_arguments, STATE 3146),
     (sym_switch_expression, STATE 962), (sym_type_parameters, STATE 2932),
     (sym__type_name, STATE 2859), (sym__formal_parameter_part, STATE 2339),
     (sym_formal_parameter_list, STATE 2020), (sym__strict_formal_parameter_list, STATE 2016),
     (sym__new_builtin, STATE 2079), (sym_this, STATE 962), (sym_super, STATE 1339),
     (sym_comment, STATE 301), (sym_documentation_comment, STATE 301),
     (aux_sym_string_literal_repeat1, STATE 474), (sym_identifier, ACTIONS 764),
     (anon_sym_POUND, ACTIONS 73), (sym_decimal_integer_literal, ACTIONS 75),
     (sym_hex_integer_literal, ACTIONS 77), (sym_decimal_floating_point_literal, ACTIONS 75),
     (anon_sym_true, ACTIONS 79), (anon_sym_false, ACTIONS 81), (anon_sym_DQUOTE, ACTIONS 83),
     (anon_sym_SQUOTE, ACTIONS 85), (anon_sym_DQUOTE_DQUOTE_DQUOTE, ACTIONS 87),
     (anon_sym_SQUOTE_SQUOTE_SQUOTE, ACTIONS 89), (anon_sym_r_DQUOTE, ACTIONS 91),
     (anon_sym_r_SQUOTE, ACTIONS 93), (anon_sym_r_DQUOTE_DQUOTE_DQUOTE, ACTIONS 95),
     (anon_sym_r_SQUOTE_SQUOTE_SQUOTE, ACTIONS 97), (anon_sym_LBRACE, ACTIONS 766),
     (anon_sym_LBRACK, ACTIONS 768), (anon_sym_null, ACTIONS 105),
     (anon_sym_LPAREN, ACTIONS 770), (anon_sym_throw, ACTIONS 772), (anon_sym_LT, ACTIONS 111),
     (sym_increment_operator, ACTIONS 688), (sym_minus_operator, ACTIONS 690),
     (anon_sym_BANG, ACTIONS 119), (anon_sym_TILDE, ACTIONS 121), (anon_sym_await, ACTIONS 692),
     (anon_sym_switch, ACTIONS 412), (anon_sym_new, ACTIONS 155),
     (sym_const_builtin, ACTIONS 478), (anon_sym_this, ACTIONS 159),
     (anon_sym_super, ACTIONS 161), (anon_sym_SLASH_SLASH, ACTIONS 3),
     (anon_sym_SLASH_STAR, ACTIONS 5), (anon_sym_SLASH_SLASH_SLASH, ACTIONS 7),
     (sym__block_comment, ACTIONS 9), (sym__documentation_block_comment, ACTIONS 11)]"

lemma row_ok_301: "table_row_ok 301 ts_parse_table_301"
  by (simp add: row_simps ts_parse_table_301_def)

definition ts_parse_table_302 :: table_row where
  "ts_parse_table_302 = [
     (sym__bool_literal, STATE 1115), (sym__numeric_literal, STATE 1115),
     (sym__literal, STATE 1135), (sym_symbol_literal, STATE 1115), (sym_true, STATE 1165),
     (sym_false, STATE 1165), (sym_string_literal, STATE 1115),
     (sym__string_literal_double_quotes, STATE 729),
     (sym__string_literal_single_quotes, STATE 729),
     (sym__string_literal_double_quotes_multiple, STATE 729),
     (sym__string_literal_single_quotes_multiple, STATE 729),
     (sym__raw_string_literal_double_quotes, STATE 729),
     (sym__raw_string_literal_single_quotes, STATE 729),
     (sym__raw_string_literal_double_quotes_multiple, STATE 729),
     (sym__raw_string_literal_single_quotes_multiple, STATE 729), (sym_list_literal, STATE 1115),
     (sym_set_or_map_literal, STATE 1115), (sym_null_literal, STATE 1115),
     (sym_record_literal, STATE 1115), (sym__record_literal_no_const, STATE 1187),
     (sym__expression_without_cascade, STATE 1591), (sym__real_expression, STATE 724),
     (sym_throw_expression_without_cascade, STATE 1573),
     (sym_assignment_expression_without_cascade, STATE 1573),
     (sym_assignable_expression, STATE 1939), (sym_function_expression, STATE 1135),
     (sym_if_null_expression, STATE 1609), (sym_conditional_expression, STATE 1609),
     (sym_logical_or_expression, STATE 1609), (sym_logical_and_expression, STATE 1609),
     (sym_equality_expression, STATE 1609), (sym_type_cast_expression, STATE 1609),
     (sym_type_test_expression, STATE 1609), (sym_relational_expression, STATE 1609),
     (sym_bitwise_or_expression, STATE 1609), (sym_bitwise_xor_expression, STATE 1609),
     (sym_bitwise_and_expression, STATE 1609), (sym_shift_expression, STATE 1609),
     (sym_additive_expression, STATE 1609), (sym_multiplicative_expression, STATE 1609),
     (sym__unary_expression, STATE 1260), (sym_unary_expression, STATE 1391),
     (sym__postfix_expression, STATE 1391), (sym_postfix_expression, STATE 1390),
     (sym_prefix_operator, STATE 432), (sym_negation_operator, STATE 1450),
     (sym__exclamation_operator, STATE 1451), (sym_tilde_operator, STATE 1394),
     (sym_await_expression, STATE 1389), (sym_new_expression, STATE 1135),
     (sym_const_object_expression, STATE 1135), (sym__primary, STATE 703),
     (sym_parenthesized_expression, STATE 1135), (sym_constructor_invocation, STATE 699),
     (sym_constructor_tearoff, STATE 1135), (sym_type_arguments, STATE 3081),
     (sym_switch_expression, STATE 1135), (sym_type_parameters, STATE 2932),
     (sym__type_name, STATE 2826), (sym__formal_parameter_part, STATE 2358),
     (sym_formal_parameter_list, STATE 2020), (sym__strict_formal_parameter_list, STATE 2016),
     (sym__new_builtin, STATE 2074), (sym_this, STATE 1135), (sym_super, STATE 1345),
     (sym_comment, STATE 302), (sym_documentation_comment, STATE 302),
     (aux_sym_string_literal_repeat1, STATE 595), (sym_identifier, ACTIONS 754),
     (anon_sym_POUND, ACTIONS 698), (sym_decimal_integer_literal, ACTIONS 700),
     (sym_hex_integer_literal, ACTIONS 702), (sym_decimal_floating_point_literal, ACTIONS 700),
     (anon_sym_true, ACTIONS 704), (anon_sym_false, ACTIONS 706), (anon_sym_DQUOTE, ACTIONS 708),
     (anon_sym_SQUOTE, ACTIONS 710), (anon_sym_DQUOTE_DQUOTE_DQUOTE, ACTIONS 712),
     (anon_sym_SQUOTE_SQUOTE_SQUOTE, ACTIONS 714), (anon_sym_r_DQUOTE, ACTIONS 716),
     (anon_sym_r_SQUOTE, ACTIONS 718), (anon_sym_r_DQUOTE_DQUOTE_DQUOTE, ACTIONS 720),
     (anon_sym_r_SQUOTE_SQUOTE_SQUOTE, ACTIONS 722), (anon_sym_LBRACE, ACTIONS 756),
     (anon_sym_LBRACK, ACTIONS 758), (anon_sym_null, ACTIONS 728),
     (anon_sym_LPAREN, ACTIONS 760), (anon_sym_throw, ACTIONS 840), (anon_sym_LT, ACTIONS 111),
     (sym_increment_operator, ACTIONS 828), (sym_minus_operator, ACTIONS 830),
     (anon_sym_BANG, ACTIONS 119), (anon_sym_TILDE, ACTIONS 121), (anon_sym_await, ACTIONS 832),
     (anon_sym_switch, ACTIONS 740), (anon_sym_new, ACTIONS 155),
     (sym_const_builtin, ACTIONS 744), (anon_sym_this, ACTIONS 746),
     (anon_sym_super, ACTIONS 161), (anon_sym_SLASH_SLASH, ACTIONS 3),
     (anon_sym_SLASH_STAR, ACTIONS 5), (anon_sym_SLASH_SLASH_SLASH, ACTIONS 7),
     (sym__block_comment, ACTIONS 9), (sym__documentation_block_comment, ACTIONS 11)]"

lemma row_ok_302: "table_row_ok 302 ts_parse_table_302"
  by (simp add: row_simps ts_parse_table_302_def)

definition ts_parse_table_303 :: table_row where
  "ts_parse_table_303 = [
     (sym__bool_literal, STATE 989), (sym__numeric_literal, STATE 989),
     (sym__literal, STATE 962), (sym_symbol_literal, STATE 989), (sym_true, STATE 900),
     (sym_false, STATE 900), (sym_string_literal, STATE 989),
     (sym__string_literal_double_quotes, STATE 627),
     (sym__string_literal_single_quotes, STATE 627),
     (sym__string_literal_double_quotes_multiple, STATE 627),
     (sym__string_literal_single_quotes_multiple, STATE 627),
     (sym__raw_string_literal_double_quotes, STATE 627),
     (sym__raw_string_literal_single_quotes, STATE 627),
     (sym__raw_string_literal_double_quotes_multiple, STATE 627),
     (sym__raw_string_literal_single_quotes_multiple, STATE 627), (sym_list_literal, STATE 989),
     (sym_set_or_map_literal, STATE 989), (sym_null_literal, STATE 989),
     (sym_record_literal, STATE 989), (sym__record_literal_no_const, STATE 924),
     (sym__expression_without_cascade, STATE 1493), (sym__real_expression, STATE 683),
     (sym_throw_expression_without_cascade, STATE 1497),
     (sym_assignment_expression_without_cascade, STATE 1497),
     (sym_assignable_expression, STATE 1936), (sym_function_expression, STATE 962),
     (sym_if_null_expression, STATE 1477), (sym_conditional_expression, STATE 1477),
     (sym_logical_or_expression, STATE 1477), (sym_logical_and_expression, STATE 1477),
     (sym_equality_expression, STATE 1477), (sym_type_cast_expression, STATE 1477),
     (sym_type_test_expression, STATE 1477), (sym_relational_expression, STATE 1477),
     (sym_bitwise_or_expression, STATE 1477), (sym_bitwise_xor_expression, STATE 1477),
     (sym_bitwise_and_expression, STATE 1477), (sym_shift_expression, STATE 1477),
     (sym_additive_expression, STATE 1477), (sym_multiplicative_expression, STATE 1477),
     (sym__unary_expression, STATE 1121), (sym_unary_expression, STATE 1303),
     (sym__postfix_expression, STATE 1303), (sym_postfix_expression, STATE 1301),
     (sym_prefix_operator, STATE 431), (sym_negation_operator, STATE 1450),
     (sym__exclamation_operator, STATE 1451), (sym_tilde_operator, STATE 1385),
     (sym_await_expression, STATE 1302), (sym_new_expression, STATE 962),
     (sym_const_object_expression, STATE 962), (sym__primary, STATE 668),
     (sym_parenthesized_expression, STATE 962), (sym_constructor_invocation, STATE 643),
     (sym_constructor_tearoff, STATE 962), (sym_type_arguments, STATE 3146),
     (sym_switch_expression, STATE 962), (sym_type_parameters, STATE 2932),
     (sym__type_name, STATE 2859), (sym__formal_parameter_part, STATE 2339),
     (sym_formal_parameter_list, STATE 2020), (sym__strict_formal_parameter_list, STATE 2016),
     (sym__new_builtin, STATE 2079), (sym_this, STATE 962), (sym_super, STATE 1337),
     (sym_comment, STATE 303), (sym_documentation_comment, STATE 303),
     (aux_sym_string_literal_repeat1, STATE 474), (sym_identifier, ACTIONS 764),
     (anon_sym_POUND, ACTIONS 73), (sym_decimal_integer_literal, ACTIONS 75),
     (sym_hex_integer_literal, ACTIONS 77), (sym_decimal_floating_point_literal, ACTIONS 75),
     (anon_sym_true, ACTIONS 79), (anon_sym_false, ACTIONS 81), (anon_sym_DQUOTE, ACTIONS 83),
     (anon_sym_SQUOTE, ACTIONS 85), (anon_sym_DQUOTE_DQUOTE_DQUOTE, ACTIONS 87),
     (anon_sym_SQUOTE_SQUOTE_SQUOTE, ACTIONS 89), (anon_sym_r_DQUOTE, ACTIONS 91),
     (anon_sym_r_SQUOTE, ACTIONS 93), (anon_sym_r_DQUOTE_DQUOTE_DQUOTE, ACTIONS 95),
     (anon_sym_r_SQUOTE_SQUOTE_SQUOTE, ACTIONS 97), (anon_sym_LBRACE, ACTIONS 766),
     (anon_sym_LBRACK, ACTIONS 768), (anon_sym_null, ACTIONS 105),
     (anon_sym_LPAREN, ACTIONS 770), (anon_sym_throw, ACTIONS 838), (anon_sym_LT, ACTIONS 111),
     (sym_increment_operator, ACTIONS 113), (sym_minus_operator, ACTIONS 117),
     (anon_sym_BANG, ACTIONS 119), (anon_sym_TILDE, ACTIONS 121), (anon_sym_await, ACTIONS 432),
     (anon_sym_switch, ACTIONS 412), (anon_sym_new, ACTIONS 155),
     (sym_const_builtin, ACTIONS 478), (anon_sym_this, ACTIONS 159),
     (anon_sym_super, ACTIONS 161), (anon_sym_SLASH_SLASH, ACTIONS 3),
     (anon_sym_SLASH_STAR, ACTIONS 5), (anon_sym_SLASH_SLASH_SLASH, ACTIONS 7),
     (sym__block_comment, ACTIONS 9), (sym__documentation_block_comment, ACTIONS 11)]"

lemma row_ok_303: "table_row_ok 303 ts_parse_table_303"
  by (simp add: row_simps ts_parse_table_303_def)

definition ts_parse_table_304 :: table_row where
  "ts_parse_table_304 = [
     (sym__bool_literal, STATE 1279), (sym__numeric_literal, STATE 1279),
     (sym__literal, STATE 1278), (sym_symbol_literal, STATE 1279), (sym_true, STATE 1275),
     (sym_false, STATE 1275), (sym_string_literal, STATE 1279),
     (sym__string_literal_double_quotes, STATE 799),
     (sym__string_literal_single_quotes, STATE 799),
     (sym__string_literal_double_quotes_multiple, STATE 799),
     (sym__string_literal_single_quotes_multiple, STATE 799),
     (sym__raw_string_literal_double_quotes, STATE 799),
     (sym__raw_string_literal_single_quotes, STATE 799),
     (sym__raw_string_literal_double_quotes_multiple, STATE 799),
     (sym__raw_string_literal_single_quotes_multiple, STATE 799), (sym_list_literal, STATE 1279),
     (sym_set_or_map_literal, STATE 1279), (sym_null_literal, STATE 1279),
     (sym_record_literal, STATE 1279), (sym__record_literal_no_const, STATE 1268),
     (sym__expression_without_cascade, STATE 1682), (sym__real_expression, STATE 754),
     (sym_throw_expression_without_cascade, STATE 1710),
     (sym_assignment_expression_without_cascade, STATE 1710),
     (sym_assignable_expression, STATE 1951), (sym_function_expression, STATE 1278),
     (sym_if_null_expression, STATE 1679), (sym_conditional_expression, STATE 1679),
     (sym_logical_or_expression, STATE 1679), (sym_logical_and_expression, STATE 1679),
     (sym_equality_expression, STATE 1679), (sym_type_cast_expression, STATE 1679),
     (sym_type_test_expression, STATE 1679), (sym_relational_expression, STATE 1679),
     (sym_bitwise_or_expression, STATE 1679), (sym_bitwise_xor_expression, STATE 1679),
     (sym_bitwise_and_expression, STATE 1679), (sym_shift_expression, STATE 1679),
     (sym_additive_expression, STATE 1679), (sym_multiplicative_expression, STATE 1679),
     (sym__unary_expression, STATE 1329), (sym_unary_expression, STATE 1480),
     (sym__postfix_expression, STATE 1480), (sym_postfix_expression, STATE 1481),
     (sym_prefix_operator, STATE 428), (sym_negation_operator, STATE 1450),
     (sym__exclamation_operator, STATE 1451), (sym_tilde_operator, STATE 1387),
     (sym_await_expression, STATE 1483), (sym_new_expression, STATE 1278),
     (sym_const_object_expression, STATE 1278), (sym__primary, STATE 716),
     (sym_parenthesized_expression, STATE 1278), (sym_constructor_invocation, STATE 717),
     (sym_constructor_tearoff, STATE 1278), (sym_type_arguments, STATE 3100),
     (sym_switch_expression, STATE 1278), (sym_type_parameters, STATE 2932),
     (sym__type_name, STATE 2949), (sym__formal_parameter_part, STATE 2342),
     (sym_formal_parameter_list, STATE 2020), (sym__strict_formal_parameter_list, STATE 2016),
     (sym__new_builtin, STATE 2091), (sym_this, STATE 1278), (sym_super, STATE 1335),
     (sym_comment, STATE 304), (sym_documentation_comment, STATE 304),
     (aux_sym_string_literal_repeat1, STATE 609), (sym_identifier, ACTIONS 774),
     (anon_sym_POUND, ACTIONS 776), (sym_decimal_integer_literal, ACTIONS 778),
     (sym_hex_integer_literal, ACTIONS 780), (sym_decimal_floating_point_literal, ACTIONS 778),
     (anon_sym_true, ACTIONS 782), (anon_sym_false, ACTIONS 784), (anon_sym_DQUOTE, ACTIONS 786),
     (anon_sym_SQUOTE, ACTIONS 788), (anon_sym_DQUOTE_DQUOTE_DQUOTE, ACTIONS 790),
     (anon_sym_SQUOTE_SQUOTE_SQUOTE, ACTIONS 792), (anon_sym_r_DQUOTE, ACTIONS 794),
     (anon_sym_r_SQUOTE, ACTIONS 796), (anon_sym_r_DQUOTE_DQUOTE_DQUOTE, ACTIONS 798),
     (anon_sym_r_SQUOTE_SQUOTE_SQUOTE, ACTIONS 800), (anon_sym_LBRACE, ACTIONS 802),
     (anon_sym_LBRACK, ACTIONS 804), (anon_sym_null, ACTIONS 806),
     (anon_sym_LPAREN, ACTIONS 808), (anon_sym_throw, ACTIONS 824), (anon_sym_LT, ACTIONS 111),
     (sym_increment_operator, ACTIONS 812), (sym_minus_operator, ACTIONS 814),
     (anon_sym_BANG, ACTIONS 119), (anon_sym_TILDE, ACTIONS 121), (anon_sym_await, ACTIONS 816),
     (anon_sym_switch, ACTIONS 818), (anon_sym_new, ACTIONS 155),
     (sym_const_builtin, ACTIONS 820), (anon_sym_this, ACTIONS 822),
     (anon_sym_super, ACTIONS 161), (anon_sym_SLASH_SLASH, ACTIONS 3),
     (anon_sym_SLASH_STAR, ACTIONS 5), (anon_sym_SLASH_SLASH_SLASH, ACTIONS 7),
     (sym__block_comment, ACTIONS 9), (sym__documentation_block_comment, ACTIONS 11)]"

lemma row_ok_304: "table_row_ok 304 ts_parse_table_304"
  by (simp add: row_simps ts_parse_table_304_def)

definition ts_parse_table_305 :: table_row where
  "ts_parse_table_305 = [
     (sym__bool_literal, STATE 1279), (sym__numeric_literal, STATE 1279),
     (sym__literal, STATE 1278), (sym_symbol_literal, STATE 1279), (sym_true, STATE 1275),
     (sym_false, STATE 1275), (sym_string_literal, STATE 1279),
     (sym__string_literal_double_quotes, STATE 799),
     (sym__string_literal_single_quotes, STATE 799),
     (sym__string_literal_double_quotes_multiple, STATE 799),
     (sym__string_literal_single_quotes_multiple, STATE 799),
     (sym__raw_string_literal_double_quotes, STATE 799),
     (sym__raw_string_literal_single_quotes, STATE 799),
     (sym__raw_string_literal_double_quotes_multiple, STATE 799),
     (sym__raw_string_literal_single_quotes_multiple, STATE 799), (sym_list_literal, STATE 1279),
     (sym_set_or_map_literal, STATE 1279), (sym_null_literal, STATE 1279),
     (sym_record_literal, STATE 1279), (sym__record_literal_no_const, STATE 1268),
     (sym__expression_without_cascade, STATE 1493), (sym__real_expression, STATE 754),
     (sym_throw_expression_without_cascade, STATE 1497),
     (sym_assignment_expression_without_cascade, STATE 1497),
     (sym_assignable_expression, STATE 1931), (sym_function_expression, STATE 1278),
     (sym_if_null_expression, STATE 1679), (sym_conditional_expression, STATE 1679),
     (sym_logical_or_expression, STATE 1679), (sym_logical_and_expression, STATE 1679),
     (sym_equality_expression, STATE 1679), (sym_type_cast_expression, STATE 1679),
     (sym_type_test_expression, STATE 1679), (sym_relational_expression, STATE 1679),
     (sym_bitwise_or_expression, STATE 1679), (sym_bitwise_xor_expression, STATE 1679),
     (sym_bitwise_and_expression, STATE 1679), (sym_shift_expression, STATE 1679),
     (sym_additive_expression, STATE 1679), (sym_multiplicative_expression, STATE 1679),
     (sym__unary_expression, STATE 1329), (sym_unary_expression, STATE 1480),
     (sym__postfix_expression, STATE 1480), (sym_postfix_expression, STATE 1481),
     (sym_prefix_operator, STATE 428), (sym_negation_operator, STATE 1450),
     (sym__exclamation_operator, STATE 1451), (sym_tilde_operator, STATE 1387),
     (sym_await_expression, STATE 1483), (sym_new_expression, STATE 1278),
     (sym_const_object_expression, STATE 1278), (sym__primary, STATE 716),
     (sym_parenthesized_expression, STATE 1278), (sym_constructor_invocation, STATE 717),
     (sym_constructor_tearoff, STATE 1278), (sym_type_arguments, STATE 3100),
     (sym_switch_expression, STATE 1278), (sym_type_parameters, STATE 2932),
     (sym__type_name, STATE 2949), (sym__formal_parameter_part, STATE 2342),
     (sym_formal_parameter_list, STATE 2020), (sym__strict_formal_parameter_list, STATE 2016),
     (sym__new_builtin, STATE 2091), (sym_this, STATE 1278), (sym_super, STATE 1335),
     (sym_comment, STATE 305), (sym_documentation_comment, STATE 305),
     (aux_sym_string_literal_repeat1, STATE 609), (sym_identifier, ACTIONS 774),
     (anon_sym_POUND, ACTIONS 776), (sym_decimal_integer_literal, ACTIONS 778),
     (sym_hex_integer_literal, ACTIONS 780), (sym_decimal_floating_point_literal, ACTIONS 778),
     (anon_sym_true, ACTIONS 782), (anon_sym_false, ACTIONS 784), (anon_sym_DQUOTE, ACTIONS 786),
     (anon_sym_SQUOTE, ACTIONS 788), (anon_sym_DQUOTE_DQUOTE_DQUOTE, ACTIONS 790),
     (anon_sym_SQUOTE_SQUOTE_SQUOTE, ACTIONS 792), (anon_sym_r_DQUOTE, ACTIONS 794),
     (anon_sym_r_SQUOTE, ACTIONS 796), (anon_sym_r_DQUOTE_DQUOTE_DQUOTE, ACTIONS 798),
     (anon_sym_r_SQUOTE_SQUOTE_SQUOTE, ACTIONS 800), (anon_sym_LBRACE, ACTIONS 802),
     (anon_sym_LBRACK, ACTIONS 804), (anon_sym_null, ACTIONS 806),
     (anon_sym_LPAREN, ACTIONS 808), (anon_sym_throw, ACTIONS 810), (anon_sym_LT, ACTIONS 111),
     (sym_increment_operator, ACTIONS 812), (sym_minus_operator, ACTIONS 814),
     (anon_sym_BANG, ACTIONS 119), (anon_sym_TILDE, ACTIONS 121), (anon_sym_await, ACTIONS 816),
     (anon_sym_switch, ACTIONS 818), (anon_sym_new, ACTIONS 155),
     (sym_const_builtin, ACTIONS 820), (anon_sym_this, ACTIONS 822),
     (anon_sym_super, ACTIONS 161), (anon_sym_SLASH_SLASH, ACTIONS 3),
     (anon_sym_SLASH_STAR, ACTIONS 5), (anon_sym_SLASH_SLASH_SLASH, ACTIONS 7),
     (sym__block_comment, ACTIONS 9), (sym__documentation_block_comment, ACTIONS 11)]"

lemma row_ok_305: "table_row_ok 305 ts_parse_table_305"
  by (simp add: row_simps ts_parse_table_305_def)

definition ts_parse_table_306 :: table_row where
  "ts_parse_table_306 = [
     (sym__bool_literal, STATE 1115), (sym__numeric_literal, STATE 1115),
     (sym__literal, STATE 1135), (sym_symbol_literal, STATE 1115), (sym_true, STATE 1165),
     (sym_false, STATE 1165), (sym_string_literal, STATE 1115),
     (sym__string_literal_double_quotes, STATE 729),
     (sym__string_literal_single_quotes, STATE 729),
     (sym__string_literal_double_quotes_multiple, STATE 729),
     (sym__string_literal_single_quotes_multiple, STATE 729),
     (sym__raw_string_literal_double_quotes, STATE 729),
     (sym__raw_string_literal_single_quotes, STATE 729),
     (sym__raw_string_literal_double_quotes_multiple, STATE 729),
     (sym__raw_string_literal_single_quotes_multiple, STATE 729), (sym_list_literal, STATE 1115),
     (sym_set_or_map_literal, STATE 1115), (sym_null_literal, STATE 1115),
     (sym_record_literal, STATE 1115), (sym__record_literal_no_const, STATE 1187),
     (sym__expression_without_cascade, STATE 1091), (sym__real_expression, STATE 554),
     (sym_throw_expression_without_cascade, STATE 1159),
     (sym_assignment_expression_without_cascade, STATE 1159),
     (sym_assignable_expression, STATE 1960), (sym_function_expression, STATE 1135),
     (sym_if_null_expression, STATE 1117), (sym_conditional_expression, STATE 1117),
     (sym_logical_or_expression, STATE 1117), (sym_logical_and_expression, STATE 1117),
     (sym_equality_expression, STATE 1117), (sym_type_cast_expression, STATE 1117),
     (sym_type_test_expression, STATE 1117), (sym_relational_expression, STATE 1117),
     (sym_bitwise_or_expression, STATE 1117), (sym_bitwise_xor_expression, STATE 1117),
     (sym_bitwise_and_expression, STATE 1117), (sym_shift_expression, STATE 1117),
     (sym_additive_expression, STATE 1117), (sym_multiplicative_expression, STATE 1117),
     (sym__unary_expression, STATE 902), (sym_unary_expression, STATE 1114),
     (sym__postfix_expression, STATE 1114), (sym_postfix_expression, STATE 1098),
     (sym_prefix_operator, STATE 417), (sym_negation_operator, STATE 1450),
     (sym__exclamation_operator, STATE 1451), (sym_tilde_operator, STATE 1359),
     (sym_await_expression, STATE 1093), (sym_new_expression, STATE 1135),
     (sym_const_object_expression, STATE 1135), (sym__primary, STATE 690),
     (sym_parenthesized_expression, STATE 1135), (sym_constructor_invocation, STATE 699),
     (sym_constructor_tearoff, STATE 1135), (sym_type_arguments, STATE 3081),
     (sym_switch_expression, STATE 1135), (sym_type_parameters, STATE 2932),
     (sym__type_name, STATE 2826), (sym__formal_parameter_part, STATE 2358),
     (sym_formal_parameter_list, STATE 2020), (sym__strict_formal_parameter_list, STATE 2016),
     (sym__new_builtin, STATE 2074), (sym_this, STATE 1135), (sym_super, STATE 1344),
     (sym_comment, STATE 306), (sym_documentation_comment, STATE 306),
     (aux_sym_string_literal_repeat1, STATE 595), (sym_identifier, ACTIONS 754),
     (anon_sym_POUND, ACTIONS 698), (sym_decimal_integer_literal, ACTIONS 700),
     (sym_hex_integer_literal, ACTIONS 702), (sym_decimal_floating_point_literal, ACTIONS 700),
     (anon_sym_true, ACTIONS 704), (anon_sym_false, ACTIONS 706), (anon_sym_DQUOTE, ACTIONS 708),
     (anon_sym_SQUOTE, ACTIONS 710), (anon_sym_DQUOTE_DQUOTE_DQUOTE, ACTIONS 712),
     (anon_sym_SQUOTE_SQUOTE_SQUOTE, ACTIONS 714), (anon_sym_r_DQUOTE, ACTIONS 716),
     (anon_sym_r_SQUOTE, ACTIONS 718), (anon_sym_r_DQUOTE_DQUOTE_DQUOTE, ACTIONS 720),
     (anon_sym_r_SQUOTE_SQUOTE_SQUOTE, ACTIONS 722), (anon_sym_LBRACE, ACTIONS 756),
     (anon_sym_LBRACK, ACTIONS 758), (anon_sym_null, ACTIONS 728),
     (anon_sym_LPAREN, ACTIONS 760), (anon_sym_throw, ACTIONS 762), (anon_sym_LT, ACTIONS 111),
     (sym_increment_operator, ACTIONS 734), (sym_minus_operator, ACTIONS 736),
     (anon_sym_BANG, ACTIONS 119), (anon_sym_TILDE, ACTIONS 121), (anon_sym_await, ACTIONS 738),
     (anon_sym_switch, ACTIONS 740), (anon_sym_new, ACTIONS 155),
     (sym_const_builtin, ACTIONS 744), (anon_sym_this, ACTIONS 746),
     (anon_sym_super, ACTIONS 161), (anon_sym_SLASH_SLASH, ACTIONS 3),
     (anon_sym_SLASH_STAR, ACTIONS 5), (anon_sym_SLASH_SLASH_SLASH, ACTIONS 7),
     (sym__block_comment, ACTIONS 9), (sym__documentation_block_comment, ACTIONS 11)]"

lemma row_ok_306: "table_row_ok 306 ts_parse_table_306"
  by (simp add: row_simps ts_parse_table_306_def)

definition ts_parse_table_307 :: table_row where
  "ts_parse_table_307 = [
     (sym__bool_literal, STATE 1115), (sym__numeric_literal, STATE 1115),
     (sym__literal, STATE 1135), (sym_symbol_literal, STATE 1115), (sym_true, STATE 1165),
     (sym_false, STATE 1165), (sym_string_literal, STATE 1115),
     (sym__string_literal_double_quotes, STATE 729),
     (sym__string_literal_single_quotes, STATE 729),
     (sym__string_literal_double_quotes_multiple, STATE 729),
     (sym__string_literal_single_quotes_multiple, STATE 729),
     (sym__raw_string_literal_double_quotes, STATE 729),
     (sym__raw_string_literal_single_quotes, STATE 729),
     (sym__raw_string_literal_double_quotes_multiple, STATE 729),
     (sym__raw_string_literal_single_quotes_multiple, STATE 729), (sym_list_literal, STATE 1115),
     (sym_set_or_map_literal, STATE 1115), (sym_null_literal, STATE 1115),
     (sym_record_literal, STATE 1115), (sym__record_literal_no_const, STATE 1187),
     (sym__expression_without_cascade, STATE 1967), (sym__real_expression, STATE 724),
     (sym_throw_expression_without_cascade, STATE 1964),
     (sym_assignment_expression_without_cascade, STATE 1964),
     (sym_assignable_expression, STATE 1948), (sym_function_expression, STATE 1135),
     (sym_if_null_expression, STATE 1609), (sym_conditional_expression, STATE 1609),
     (sym_logical_or_expression, STATE 1609), (sym_logical_and_expression, STATE 1609),
     (sym_equality_expression, STATE 1609), (sym_type_cast_expression, STATE 1609),
     (sym_type_test_expression, STATE 1609), (sym_relational_expression, STATE 1609),
     (sym_bitwise_or_expression, STATE 1609), (sym_bitwise_xor_expression, STATE 1609),
     (sym_bitwise_and_expression, STATE 1609), (sym_shift_expression, STATE 1609),
     (sym_additive_expression, STATE 1609), (sym_multiplicative_expression, STATE 1609),
     (sym__unary_expression, STATE 1260), (sym_unary_expression, STATE 1391),
     (sym__postfix_expression, STATE 1391), (sym_postfix_expression, STATE 1390),
     (sym_prefix_operator, STATE 432), (sym_negation_operator, STATE 1450),
     (sym__exclamation_operator, STATE 1451), (sym_tilde_operator, STATE 1394),
     (sym_await_expression, STATE 1389), (sym_new_expression, STATE 1135),
     (sym_const_object_expression, STATE 1135), (sym__primary, STATE 703),
     (sym_parenthesized_expression, STATE 1135), (sym_constructor_invocation, STATE 699),
     (sym_constructor_tearoff, STATE 1135), (sym_type_arguments, STATE 3081),
     (sym_switch_expression, STATE 1135), (sym_type_parameters, STATE 2932),
     (sym__type_name, STATE 2826), (sym__formal_parameter_part, STATE 2358),
     (sym_formal_parameter_list, STATE 2020), (sym__strict_formal_parameter_list, STATE 2016),
     (sym__new_builtin, STATE 2074), (sym_this, STATE 1135), (sym_super, STATE 1345),
     (sym_comment, STATE 307), (sym_documentation_comment, STATE 307),
     (aux_sym_string_literal_repeat1, STATE 595), (sym_identifier, ACTIONS 754),
     (anon_sym_POUND, ACTIONS 698), (sym_decimal_integer_literal, ACTIONS 700),
     (sym_hex_integer_literal, ACTIONS 702), (sym_decimal_floating_point_literal, ACTIONS 700),
     (anon_sym_true, ACTIONS 704), (anon_sym_false, ACTIONS 706), (anon_sym_DQUOTE, ACTIONS 708),
     (anon_sym_SQUOTE, ACTIONS 710), (anon_sym_DQUOTE_DQUOTE_DQUOTE, ACTIONS 712),
     (anon_sym_SQUOTE_SQUOTE_SQUOTE, ACTIONS 714), (anon_sym_r_DQUOTE, ACTIONS 716),
     (anon_sym_r_SQUOTE, ACTIONS 718), (anon_sym_r_DQUOTE_DQUOTE_DQUOTE, ACTIONS 720),
     (anon_sym_r_SQUOTE_SQUOTE_SQUOTE, ACTIONS 722), (anon_sym_LBRACE, ACTIONS 756),
     (anon_sym_LBRACK, ACTIONS 758), (anon_sym_null, ACTIONS 728),
     (anon_sym_LPAREN, ACTIONS 760), (anon_sym_throw, ACTIONS 826), (anon_sym_LT, ACTIONS 111),
     (sym_increment_operator, ACTIONS 828), (sym_minus_operator, ACTIONS 830),
     (anon_sym_BANG, ACTIONS 119), (anon_sym_TILDE, ACTIONS 121), (anon_sym_await, ACTIONS 832),
     (anon_sym_switch, ACTIONS 740), (anon_sym_new, ACTIONS 155),
     (sym_const_builtin, ACTIONS 744), (anon_sym_this, ACTIONS 746),
     (anon_sym_super, ACTIONS 161), (anon_sym_SLASH_SLASH, ACTIONS 3),
     (anon_sym_SLASH_STAR, ACTIONS 5), (anon_sym_SLASH_SLASH_SLASH, ACTIONS 7),
     (sym__block_comment, ACTIONS 9), (sym__documentation_block_comment, ACTIONS 11)]"

lemma row_ok_307: "table_row_ok 307 ts_parse_table_307"
  by (simp add: row_simps ts_parse_table_307_def)

definition ts_parse_table_308 :: table_row where
  "ts_parse_table_308 = [
     (sym__bool_literal, STATE 989), (sym__numeric_literal, STATE 989),
     (sym__literal, STATE 962), (sym_symbol_literal, STATE 989), (sym_true, STATE 900),
     (sym_false, STATE 900), (sym_string_literal, STATE 989),
     (sym__string_literal_double_quotes, STATE 627),
     (sym__string_literal_single_quotes, STATE 627),
     (sym__string_literal_double_quotes_multiple, STATE 627),
     (sym__string_literal_single_quotes_multiple, STATE 627),
     (sym__raw_string_literal_double_quotes, STATE 627),
     (sym__raw_string_literal_single_quotes, STATE 627),
     (sym__raw_string_literal_double_quotes_multiple, STATE 627),
     (sym__raw_string_literal_single_quotes_multiple, STATE 627), (sym_list_literal, STATE 989),
     (sym_set_or_map_literal, STATE 989), (sym_null_literal, STATE 989),
     (sym_record_literal, STATE 989), (sym__record_literal_no_const, STATE 924),
     (sym__expression_without_cascade, STATE 1484), (sym__real_expression, STATE 683),
     (sym_throw_expression_without_cascade, STATE 1497),
     (sym_assignment_expression_without_cascade, STATE 1497),
     (sym_assignable_expression, STATE 1936), (sym_function_expression, STATE 962),
     (sym_if_null_expression, STATE 1477), (sym_conditional_expression, STATE 1477),
     (sym_logical_or_expression, STATE 1477), (sym_logical_and_expression, STATE 1477),
     (sym_equality_expression, STATE 1477), (sym_type_cast_expression, STATE 1477),
     (sym_type_test_expression, STATE 1477), (sym_relational_expression, STATE 1477),
     (sym_bitwise_or_expression, STATE 1477), (sym_bitwise_xor_expression, STATE 1477),
     (sym_bitwise_and_expression, STATE 1477), (sym_shift_expression, STATE 1477),
     (sym_additive_expression, STATE 1477), (sym_multiplicative_expression, STATE 1477),
     (sym__unary_expression, STATE 1121), (sym_unary_expression, STATE 1303),
     (sym__postfix_expression, STATE 1303), (sym_postfix_expression, STATE 1301),
     (sym_prefix_operator, STATE 431), (sym_negation_operator, STATE 1450),
     (sym__exclamation_operator, STATE 1451), (sym_tilde_operator, STATE 1385),
     (sym_await_expression, STATE 1302), (sym_new_expression, STATE 962),
     (sym_const_object_expression, STATE 962), (sym__primary, STATE 668),
     (sym_parenthesized_expression, STATE 962), (sym_constructor_invocation, STATE 643),
     (sym_constructor_tearoff, STATE 962), (sym_type_arguments, STATE 3146),
     (sym_switch_expression, STATE 962), (sym_type_parameters, STATE 2932),
     (sym__type_name, STATE 2859), (sym__formal_parameter_part, STATE 2339),
     (sym_formal_parameter_list, STATE 2020), (sym__strict_formal_parameter_list, STATE 2016),
     (sym__new_builtin, STATE 2079), (sym_this, STATE 962), (sym_super, STATE 1337),
     (sym_comment, STATE 308), (sym_documentation_comment, STATE 308),
     (aux_sym_string_literal_repeat1, STATE 474), (sym_identifier, ACTIONS 764),
     (anon_sym_POUND, ACTIONS 73), (sym_decimal_integer_literal, ACTIONS 75),
     (sym_hex_integer_literal, ACTIONS 77), (sym_decimal_floating_point_literal, ACTIONS 75),
     (anon_sym_true, ACTIONS 79), (anon_sym_false, ACTIONS 81), (anon_sym_DQUOTE, ACTIONS 83),
     (anon_sym_SQUOTE, ACTIONS 85), (anon_sym_DQUOTE_DQUOTE_DQUOTE, ACTIONS 87),
     (anon_sym_SQUOTE_SQUOTE_SQUOTE, ACTIONS 89), (anon_sym_r_DQUOTE, ACTIONS 91),
     (anon_sym_r_SQUOTE, ACTIONS 93), (anon_sym_r_DQUOTE_DQUOTE_DQUOTE, ACTIONS 95),
     (anon_sym_r_SQUOTE_SQUOTE_SQUOTE, ACTIONS 97), (anon_sym_LBRACE, ACTIONS 766),
     (anon_sym_LBRACK, ACTIONS 768), (anon_sym_null, ACTIONS 105),
     (anon_sym_LPAREN, ACTIONS 770), (anon_sym_throw, ACTIONS 838), (anon_sym_LT, ACTIONS 111),
     (sym_increment_operator, ACTIONS 113), (sym_minus_operator, ACTIONS 117),
     (anon_sym_BANG, ACTIONS 119), (anon_sym_TILDE, ACTIONS 121), (anon_sym_await, ACTIONS 432),
     (anon_sym_switch, ACTIONS 412), (anon_sym_new, ACTIONS 155),
     (sym_const_builtin, ACTIONS 478), (anon_sym_this, ACTIONS 159),
     (anon_sym_super, ACTIONS 161), (anon_sym_SLASH_SLASH, ACTIONS 3),
     (anon_sym_SLASH_STAR, ACTIONS 5), (anon_sym_SLASH_SLASH_SLASH, ACTIONS 7),
     (sym__block_comment, ACTIONS 9), (sym__documentation_block_comment, ACTIONS 11)]"

lemma row_ok_308: "table_row_ok 308 ts_parse_table_308"
  by (simp add: row_simps ts_parse_table_308_def)

definition ts_parse_table_309 :: table_row where
  "ts_parse_table_309 = [
     (sym__bool_literal, STATE 1279), (sym__numeric_literal, STATE 1279),
     (sym__literal, STATE 1278), (sym_symbol_literal, STATE 1279), (sym_true, STATE 1275),
     (sym_false, STATE 1275), (sym_string_literal, STATE 1279),
     (sym__string_literal_double_quotes, STATE 799),
     (sym__string_literal_single_quotes, STATE 799),
     (sym__string_literal_double_quotes_multiple, STATE 799),
     (sym__string_literal_single_quotes_multiple, STATE 799),
     (sym__raw_string_literal_double_quotes, STATE 799),
     (sym__raw_string_literal_single_quotes, STATE 799),
     (sym__raw_string_literal_double_quotes_multiple, STATE 799),
     (sym__raw_string_literal_single_quotes_multiple, STATE 799), (sym_list_literal, STATE 1279),
     (sym_set_or_map_literal, STATE 1279), (sym_null_literal, STATE 1279),
     (sym_record_literal, STATE 1279), (sym__record_literal_no_const, STATE 1268),
     (sym__real_expression, STATE 770), (sym_assignable_expression, STATE 3162),
     (sym_function_expression, STATE 1278), (sym_if_null_expression, STATE 1679),
     (sym_conditional_expression, STATE 1679), (sym_logical_or_expression, STATE 1679),
     (sym_logical_and_expression, STATE 1679), (sym_equality_expression, STATE 1679),
     (sym_type_cast_expression, STATE 1679), (sym_type_test_expression, STATE 1679),
     (sym_relational_expression, STATE 1679), (sym_bitwise_or_expression, STATE 1679),
     (sym_bitwise_xor_expression, STATE 1679), (sym_bitwise_and_expression, STATE 1679),
     (sym_shift_expression, STATE 1679), (sym_additive_expression, STATE 1679),
     (sym_multiplicative_expression, STATE 1679), (sym__unary_expression, STATE 1329),
     (sym_unary_expression, STATE 1480), (sym__postfix_expression, STATE 1480),
     (sym_postfix_expression, STATE 1481), (sym_prefix_operator, STATE 428),
     (sym_negation_operator, STATE 1450), (sym__exclamation_operator, STATE 1451),
     (sym_tilde_operator, STATE 1387), (sym_await_expression, STATE 1483),
     (sym_new_expression, STATE 1278), (sym_const_object_expression, STATE 1278),
     (sym__primary, STATE 719), (sym_parenthesized_expression, STATE 1278),
     (sym_constructor_invocation, STATE 728), (sym_constructor_tearoff, STATE 1278),
     (sym_type_arguments, STATE 3100), (sym_switch_expression, STATE 1278),
     (sym_type_parameters, STATE 2932), (sym__type_name, STATE 2949),
     (sym__formal_parameter_part, STATE 2342), (sym_formal_parameter_list, STATE 2020),
     (sym__strict_formal_parameter_list, STATE 2016), (sym__new_builtin, STATE 2091),
     (sym_this, STATE 1278), (sym_super, STATE 1347), (sym_comment, STATE 309),
     (sym_documentation_comment, STATE 309), (aux_sym_string_literal_repeat1, STATE 609),
     (sym_identifier, ACTIONS 842), (anon_sym_POUND, ACTIONS 776),
     (sym_decimal_integer_literal, ACTIONS 778), (sym_hex_integer_literal, ACTIONS 780),
     (sym_decimal_floating_point_literal, ACTIONS 778), (anon_sym_true, ACTIONS 782),
     (anon_sym_false, ACTIONS 784), (anon_sym_DQUOTE, ACTIONS 786),
     (anon_sym_SQUOTE, ACTIONS 788), (anon_sym_DQUOTE_DQUOTE_DQUOTE, ACTIONS 790),
     (anon_sym_SQUOTE_SQUOTE_SQUOTE, ACTIONS 792), (anon_sym_r_DQUOTE, ACTIONS 794),
     (anon_sym_r_SQUOTE, ACTIONS 796), (anon_sym_r_DQUOTE_DQUOTE_DQUOTE, ACTIONS 798),
     (anon_sym_r_SQUOTE_SQUOTE_SQUOTE, ACTIONS 800), (anon_sym_LBRACE, ACTIONS 802),
     (anon_sym_LBRACK, ACTIONS 804), (anon_sym_null, ACTIONS 806),
     (anon_sym_LPAREN, ACTIONS 808), (anon_sym_LT, ACTIONS 111),
     (sym_increment_operator, ACTIONS 812), (sym_minus_operator, ACTIONS 814),
     (anon_sym_BANG, ACTIONS 119), (anon_sym_TILDE, ACTIONS 121), (anon_sym_await, ACTIONS 816),
     (anon_sym_switch, ACTIONS 818), (anon_sym_new, ACTIONS 155),
     (sym_const_builtin, ACTIONS 820), (anon_sym_this, ACTIONS 822),
     (anon_sym_super, ACTIONS 161), (anon_sym_SLASH_SLASH, ACTIONS 3),
     (anon_sym_SLASH_STAR, ACTIONS 5), (anon_sym_SLASH_SLASH_SLASH, ACTIONS 7),
     (sym__block_comment, ACTIONS 9), (sym__documentation_block_comment, ACTIONS 11)]"

lemma row_ok_309: "table_row_ok 309 ts_parse_table_309"
  by (simp add: row_simps ts_parse_table_309_def)

definition ts_parse_table_310 :: table_row where
  "ts_parse_table_310 = [
     (sym__bool_literal, STATE 989), (sym__numeric_literal, STATE 989),
     (sym__literal, STATE 962), (sym_symbol_literal, STATE 989), (sym_true, STATE 900),
     (sym_false, STATE 900), (sym_string_literal, STATE 989),
     (sym__string_literal_double_quotes, STATE 627),
     (sym__string_literal_single_quotes, STATE 627),
     (sym__string_literal_double_quotes_multiple, STATE 627),
     (sym__string_literal_single_quotes_multiple, STATE 627),
     (sym__raw_string_literal_double_quotes, STATE 627),
     (sym__raw_string_literal_single_quotes, STATE 627),
     (sym__raw_string_literal_double_quotes_multiple, STATE 627),
     (sym__raw_string_literal_single_quotes_multiple, STATE 627), (sym_list_literal, STATE 989),
     (sym_set_or_map_literal, STATE 989), (sym_null_literal, STATE 989),
     (sym_record_literal, STATE 989), (sym__record_literal_no_const, STATE 924),
     (sym__real_expression, STATE 785), (sym_assignable_expression, STATE 3122),
     (sym_function_expression, STATE 962), (sym_if_null_expression, STATE 1477),
     (sym_conditional_expression, STATE 1477), (sym_logical_or_expression, STATE 1477),
     (sym_logical_and_expression, STATE 1477), (sym_equality_expression, STATE 1477),
     (sym_type_cast_expression, STATE 1477), (sym_type_test_expression, STATE 1477),
     (sym_relational_expression, STATE 1477), (sym_bitwise_or_expression, STATE 1477),
     (sym_bitwise_xor_expression, STATE 1477), (sym_bitwise_and_expression, STATE 1477),
     (sym_shift_expression, STATE 1477), (sym_additive_expression, STATE 1477),
     (sym_multiplicative_expression, STATE 1477), (sym__unary_expression, STATE 1121),
     (sym_unary_expression, STATE 1303), (sym__postfix_expression, STATE 1303),
     (sym_postfix_expression, STATE 1301), (sym_prefix_operator, STATE 431),
     (sym_negation_operator, STATE 1450), (sym__exclamation_operator, STATE 1451),
     (sym_tilde_operator, STATE 1385), (sym_await_expression, STATE 1302),
     (sym_new_expression, STATE 962), (sym_const_object_expression, STATE 962),
     (sym__primary, STATE 674), (sym_parenthesized_expression, STATE 962),
     (sym_constructor_invocation, STATE 654), (sym_constructor_tearoff, STATE 962),
     (sym_type_arguments, STATE 3146), (sym_switch_expression, STATE 962),
     (sym_type_parameters, STATE 2932), (sym__type_name, STATE 2859),
     (sym__formal_parameter_part, STATE 2339), (sym_formal_parameter_list, STATE 2020),
     (sym__strict_formal_parameter_list, STATE 2016), (sym__new_builtin, STATE 2079),
     (sym_this, STATE 962), (sym_super, STATE 1322), (sym_comment, STATE 310),
     (sym_documentation_comment, STATE 310), (aux_sym_string_literal_repeat1, STATE 474),
     (sym_identifier, ACTIONS 844), (anon_sym_POUND, ACTIONS 73),
     (sym_decimal_integer_literal, ACTIONS 75), (sym_hex_integer_literal, ACTIONS 77),
     (sym_decimal_floating_point_literal, ACTIONS 75), (anon_sym_true, ACTIONS 79),
     (anon_sym_false, ACTIONS 81), (anon_sym_DQUOTE, ACTIONS 83), (anon_sym_SQUOTE, ACTIONS 85),
     (anon_sym_DQUOTE_DQUOTE_DQUOTE, ACTIONS 87), (anon_sym_SQUOTE_SQUOTE_SQUOTE, ACTIONS 89),
     (anon_sym_r_DQUOTE, ACTIONS 91), (anon_sym_r_SQUOTE, ACTIONS 93),
     (anon_sym_r_DQUOTE_DQUOTE_DQUOTE, ACTIONS 95),
     (anon_sym_r_SQUOTE_SQUOTE_SQUOTE, ACTIONS 97), (anon_sym_LBRACE, ACTIONS 766),
     (anon_sym_LBRACK, ACTIONS 768), (anon_sym_null, ACTIONS 105),
     (anon_sym_LPAREN, ACTIONS 770), (anon_sym_LT, ACTIONS 111),
     (sym_increment_operator, ACTIONS 113), (sym_minus_operator, ACTIONS 117),
     (anon_sym_BANG, ACTIONS 119), (anon_sym_TILDE, ACTIONS 121), (anon_sym_await, ACTIONS 432),
     (anon_sym_switch, ACTIONS 412), (anon_sym_new, ACTIONS 155),
     (sym_const_builtin, ACTIONS 478), (anon_sym_this, ACTIONS 159),
     (anon_sym_super, ACTIONS 161), (anon_sym_SLASH_SLASH, ACTIONS 3),
     (anon_sym_SLASH_STAR, ACTIONS 5), (anon_sym_SLASH_SLASH_SLASH, ACTIONS 7),
     (sym__block_comment, ACTIONS 9), (sym__documentation_block_comment, ACTIONS 11)]"

lemma row_ok_310: "table_row_ok 310 ts_parse_table_310"
  by (simp add: row_simps ts_parse_table_310_def)

definition ts_parse_table_311 :: table_row where
  "ts_parse_table_311 = [
     (sym__bool_literal, STATE 989), (sym__numeric_literal, STATE 989),
     (sym__literal, STATE 962), (sym_symbol_literal, STATE 989), (sym_true, STATE 900),
     (sym_false, STATE 900), (sym_string_literal, STATE 989),
     (sym__string_literal_double_quotes, STATE 627),
     (sym__string_literal_single_quotes, STATE 627),
     (sym__string_literal_double_quotes_multiple, STATE 627),
     (sym__string_literal_single_quotes_multiple, STATE 627),
     (sym__raw_string_literal_double_quotes, STATE 627),
     (sym__raw_string_literal_single_quotes, STATE 627),
     (sym__raw_string_literal_double_quotes_multiple, STATE 627),
     (sym__raw_string_literal_single_quotes_multiple, STATE 627), (sym_list_literal, STATE 989),
     (sym_set_or_map_literal, STATE 989), (sym_null_literal, STATE 989),
     (sym_record_literal, STATE 989), (sym__record_literal_no_const, STATE 924),
     (sym__real_expression, STATE 689), (sym_assignable_expression, STATE 3122),
     (sym_function_expression, STATE 962), (sym_if_null_expression, STATE 1477),
     (sym_conditional_expression, STATE 1477), (sym_logical_or_expression, STATE 1477),
     (sym_logical_and_expression, STATE 1477), (sym_equality_expression, STATE 1477),
     (sym_type_cast_expression, STATE 1477), (sym_type_test_expression, STATE 1477),
     (sym_relational_expression, STATE 1477), (sym_bitwise_or_expression, STATE 1477),
     (sym_bitwise_xor_expression, STATE 1477), (sym_bitwise_and_expression, STATE 1477),
     (sym_shift_expression, STATE 1477), (sym_additive_expression, STATE 1477),
     (sym_multiplicative_expression, STATE 1477), (sym__unary_expression, STATE 1121),
     (sym_unary_expression, STATE 1303), (sym__postfix_expression, STATE 1303),
     (sym_postfix_expression, STATE 1301), (sym_prefix_operator, STATE 431),
     (sym_negation_operator, STATE 1450), (sym__exclamation_operator, STATE 1451),
     (sym_tilde_operator, STATE 1385), (sym_await_expression, STATE 1302),
     (sym_new_expression, STATE 962), (sym_const_object_expression, STATE 962),
     (sym__primary, STATE 674), (sym_parenthesized_expression, STATE 962),
     (sym_constructor_invocation, STATE 654), (sym_constructor_tearoff, STATE 962),
     (sym_type_arguments, STATE 3146), (sym_switch_expression, STATE 962),
     (sym_type_parameters, STATE 2932), (sym__type_name, STATE 2859),
     (sym__formal_parameter_part, STATE 2339), (sym_formal_parameter_list, STATE 2020),
     (sym__strict_formal_parameter_list, STATE 2016), (sym__new_builtin, STATE 2079),
     (sym_this, STATE 962), (sym_super, STATE 1322), (sym_comment, STATE 311),
     (sym_documentation_comment, STATE 311), (aux_sym_string_literal_repeat1, STATE 474),
     (sym_identifier, ACTIONS 844), (anon_sym_POUND, ACTIONS 73),
     (sym_decimal_integer_literal, ACTIONS 75), (sym_hex_integer_literal, ACTIONS 77),
     (sym_decimal_floating_point_literal, ACTIONS 75), (anon_sym_true, ACTIONS 79),
     (anon_sym_false, ACTIONS 81), (anon_sym_DQUOTE, ACTIONS 83), (anon_sym_SQUOTE, ACTIONS 85),
     (anon_sym_DQUOTE_DQUOTE_DQUOTE, ACTIONS 87), (anon_sym_SQUOTE_SQUOTE_SQUOTE, ACTIONS 89),
     (anon_sym_r_DQUOTE, ACTIONS 91), (anon_sym_r_SQUOTE, ACTIONS 93),
     (anon_sym_r_DQUOTE_DQUOTE_DQUOTE, ACTIONS 95),
     (anon_sym_r_SQUOTE_SQUOTE_SQUOTE, ACTIONS 97), (anon_sym_LBRACE, ACTIONS 766),
     (anon_sym_LBRACK, ACTIONS 768), (anon_sym_null, ACTIONS 105),
     (anon_sym_LPAREN, ACTIONS 770), (anon_sym_LT, ACTIONS 111),
     (sym_increment_operator, ACTIONS 113), (sym_minus_operator, ACTIONS 117),
     (anon_sym_BANG, ACTIONS 119), (anon_sym_TILDE, ACTIONS 121), (anon_sym_await, ACTIONS 432),
     (anon_sym_switch, ACTIONS 412), (anon_sym_new, ACTIONS 155),
     (sym_const_builtin, ACTIONS 478), (anon_sym_this, ACTIONS 159),
     (anon_sym_super, ACTIONS 161), (anon_sym_SLASH_SLASH, ACTIONS 3),
     (anon_sym_SLASH_STAR, ACTIONS 5), (anon_sym_SLASH_SLASH_SLASH, ACTIONS 7),
     (sym__block_comment, ACTIONS 9), (sym__documentation_block_comment, ACTIONS 11)]"

lemma row_ok_311: "table_row_ok 311 ts_parse_table_311"
  by (simp add: row_simps ts_parse_table_311_def)

definition ts_parse_table_312 :: table_row where
  "ts_parse_table_312 = [
     (sym__bool_literal, STATE 1115), (sym__numeric_literal, STATE 1115),
     (sym__literal, STATE 1135), (sym_symbol_literal, STATE 1115), (sym_true, STATE 1165),
     (sym_false, STATE 1165), (sym_string_literal, STATE 1115),
     (sym__string_literal_double_quotes, STATE 729),
     (sym__string_literal_single_quotes, STATE 729),
     (sym__string_literal_double_quotes_multiple, STATE 729),
     (sym__string_literal_single_quotes_multiple, STATE 729),
     (sym__raw_string_literal_double_quotes, STATE 729),
     (sym__raw_string_literal_single_quotes, STATE 729),
     (sym__raw_string_literal_double_quotes_multiple, STATE 729),
     (sym__raw_string_literal_single_quotes_multiple, STATE 729), (sym_list_literal, STATE 1115),
     (sym_set_or_map_literal, STATE 1115), (sym_null_literal, STATE 1115),
     (sym_record_literal, STATE 1115), (sym__record_literal_no_const, STATE 1187),
     (sym__real_expression, STATE 718), (sym_assignable_expression, STATE 3194),
     (sym_function_expression, STATE 1135), (sym_if_null_expression, STATE 1609),
     (sym_conditional_expression, STATE 1609), (sym_logical_or_expression, STATE 1609),
     (sym_logical_and_expression, STATE 1609), (sym_equality_expression, STATE 1609),
     (sym_type_cast_expression, STATE 1609), (sym_type_test_expression, STATE 1609),
     (sym_relational_expression, STATE 1609), (sym_bitwise_or_expression, STATE 1609),
     (sym_bitwise_xor_expression, STATE 1609), (sym_bitwise_and_expression, STATE 1609),
     (sym_shift_expression, STATE 1609), (sym_additive_expression, STATE 1609),
     (sym_multiplicative_expression, STATE 1609), (sym__unary_expression, STATE 1260),
     (sym_unary_expression, STATE 1391), (sym__postfix_expression, STATE 1391),
     (sym_postfix_expression, STATE 1390), (sym_prefix_operator, STATE 432),
     (sym_negation_operator, STATE 1450), (sym__exclamation_operator, STATE 1451),
     (sym_tilde_operator, STATE 1394), (sym_await_expression, STATE 1389),
     (sym_new_expression, STATE 1135), (sym_const_object_expression, STATE 1135),
     (sym__primary, STATE 684), (sym_parenthesized_expression, STATE 1135),
     (sym_constructor_invocation, STATE 691), (sym_constructor_tearoff, STATE 1135),
     (sym_type_arguments, STATE 3081), (sym_switch_expression, STATE 1135),
     (sym_type_parameters, STATE 2932), (sym__type_name, STATE 2826),
     (sym__formal_parameter_part, STATE 2358), (sym_formal_parameter_list, STATE 2020),
     (sym__strict_formal_parameter_list, STATE 2016), (sym__new_builtin, STATE 2074),
     (sym_this, STATE 1135), (sym_super, STATE 1342), (sym_comment, STATE 312),
     (sym_documentation_comment, STATE 312), (aux_sym_string_literal_repeat1, STATE 595),
     (sym_identifier, ACTIONS 846), (anon_sym_POUND, ACTIONS 698),
     (sym_decimal_integer_literal, ACTIONS 700), (sym_hex_integer_literal, ACTIONS 702),
     (sym_decimal_floating_point_literal, ACTIONS 700), (anon_sym_true, ACTIONS 704),
     (anon_sym_false, ACTIONS 706), (anon_sym_DQUOTE, ACTIONS 708),
     (anon_sym_SQUOTE, ACTIONS 710), (anon_sym_DQUOTE_DQUOTE_DQUOTE, ACTIONS 712),
     (anon_sym_SQUOTE_SQUOTE_SQUOTE, ACTIONS 714), (anon_sym_r_DQUOTE, ACTIONS 716),
     (anon_sym_r_SQUOTE, ACTIONS 718), (anon_sym_r_DQUOTE_DQUOTE_DQUOTE, ACTIONS 720),
     (anon_sym_r_SQUOTE_SQUOTE_SQUOTE, ACTIONS 722), (anon_sym_LBRACE, ACTIONS 756),
     (anon_sym_LBRACK, ACTIONS 758), (anon_sym_null, ACTIONS 728),
     (anon_sym_LPAREN, ACTIONS 760), (anon_sym_LT, ACTIONS 111),
     (sym_increment_operator, ACTIONS 828), (sym_minus_operator, ACTIONS 830),
     (anon_sym_BANG, ACTIONS 119), (anon_sym_TILDE, ACTIONS 121), (anon_sym_await, ACTIONS 832),
     (anon_sym_switch, ACTIONS 740), (anon_sym_new, ACTIONS 155),
     (sym_const_builtin, ACTIONS 744), (anon_sym_this, ACTIONS 746),
     (anon_sym_super, ACTIONS 161), (anon_sym_SLASH_SLASH, ACTIONS 3),
     (anon_sym_SLASH_STAR, ACTIONS 5), (anon_sym_SLASH_SLASH_SLASH, ACTIONS 7),
     (sym__block_comment, ACTIONS 9), (sym__documentation_block_comment, ACTIONS 11)]"

lemma row_ok_312: "table_row_ok 312 ts_parse_table_312"
  by (simp add: row_simps ts_parse_table_312_def)

definition ts_parse_table_313 :: table_row where
  "ts_parse_table_313 = [
     (sym__bool_literal, STATE 989), (sym__numeric_literal, STATE 989),
     (sym__literal, STATE 962), (sym_symbol_literal, STATE 989), (sym_true, STATE 900),
     (sym_false, STATE 900), (sym_string_literal, STATE 989),
     (sym__string_literal_double_quotes, STATE 627),
     (sym__string_literal_single_quotes, STATE 627),
     (sym__string_literal_double_quotes_multiple, STATE 627),
     (sym__string_literal_single_quotes_multiple, STATE 627),
     (sym__raw_string_literal_double_quotes, STATE 627),
     (sym__raw_string_literal_single_quotes, STATE 627),
     (sym__raw_string_literal_double_quotes_multiple, STATE 627),
     (sym__raw_string_literal_single_quotes_multiple, STATE 627), (sym_list_literal, STATE 989),
     (sym_set_or_map_literal, STATE 989), (sym_null_literal, STATE 989),
     (sym_record_literal, STATE 989), (sym__record_literal_no_const, STATE 924),
     (sym__real_expression, STATE 704), (sym_assignable_expression, STATE 3122),
     (sym_function_expression, STATE 962), (sym_if_null_expression, STATE 1477),
     (sym_conditional_expression, STATE 1477), (sym_logical_or_expression, STATE 1477),
     (sym_logical_and_expression, STATE 1477), (sym_equality_expression, STATE 1477),
     (sym_type_cast_expression, STATE 1477), (sym_type_test_expression, STATE 1477),
     (sym_relational_expression, STATE 1477), (sym_bitwise_or_expression, STATE 1477),
     (sym_bitwise_xor_expression, STATE 1477), (sym_bitwise_and_expression, STATE 1477),
     (sym_shift_expression, STATE 1477), (sym_additive_expression, STATE 1477),
     (sym_multiplicative_expression, STATE 1477), (sym__unary_expression, STATE 1121),
     (sym_unary_expression, STATE 1303), (sym__postfix_expression, STATE 1303),
     (sym_postfix_expression, STATE 1301), (sym_prefix_operator, STATE 431),
     (sym_negation_operator, STATE 1450), (sym__exclamation_operator, STATE 1451),
     (sym_tilde_operator, STATE 1385), (sym_await_expression, STATE 1302),
     (sym_new_expression, STATE 962), (sym_const_object_expression, STATE 962),
     (sym__primary, STATE 674), (sym_parenthesized_expression, STATE 962),
     (sym_constructor_invocation, STATE 654), (sym_constructor_tearoff, STATE 962),
     (sym_type_arguments, STATE 3146), (sym_switch_expression, STATE 962),
     (sym_type_parameters, STATE 2932), (sym__type_name, STATE 2859),
     (sym__formal_parameter_part, STATE 2339), (sym_formal_parameter_list, STATE 2020),
     (sym__strict_formal_parameter_list, STATE 2016), (sym__new_builtin, STATE 2079),
     (sym_this, STATE 962), (sym_super, STATE 1322), (sym_comment, STATE 313),
     (sym_documentation_comment, STATE 313), (aux_sym_string_literal_repeat1, STATE 474),
     (sym_identifier, ACTIONS 844), (anon_sym_POUND, ACTIONS 73),
     (sym_decimal_integer_literal, ACTIONS 75), (sym_hex_integer_literal, ACTIONS 77),
     (sym_decimal_floating_point_literal, ACTIONS 75), (anon_sym_true, ACTIONS 79),
     (anon_sym_false, ACTIONS 81), (anon_sym_DQUOTE, ACTIONS 83), (anon_sym_SQUOTE, ACTIONS 85),
     (anon_sym_DQUOTE_DQUOTE_DQUOTE, ACTIONS 87), (anon_sym_SQUOTE_SQUOTE_SQUOTE, ACTIONS 89),
     (anon_sym_r_DQUOTE, ACTIONS 91), (anon_sym_r_SQUOTE, ACTIONS 93),
     (anon_sym_r_DQUOTE_DQUOTE_DQUOTE, ACTIONS 95),
     (anon_sym_r_SQUOTE_SQUOTE_SQUOTE, ACTIONS 97), (anon_sym_LBRACE, ACTIONS 766),
     (anon_sym_LBRACK, ACTIONS 768), (anon_sym_null, ACTIONS 105),
     (anon_sym_LPAREN, ACTIONS 770), (anon_sym_LT, ACTIONS 111),
     (sym_increment_operator, ACTIONS 113), (sym_minus_operator, ACTIONS 117),
     (anon_sym_BANG, ACTIONS 119), (anon_sym_TILDE, ACTIONS 121), (anon_sym_await, ACTIONS 432),
     (anon_sym_switch, ACTIONS 412), (anon_sym_new, ACTIONS 155),
     (sym_const_builtin, ACTIONS 478), (anon_sym_this, ACTIONS 159),
     (anon_sym_super, ACTIONS 161), (anon_sym_SLASH_SLASH, ACTIONS 3),
     (anon_sym_SLASH_STAR, ACTIONS 5), (anon_sym_SLASH_SLASH_SLASH, ACTIONS 7),
     (sym__block_comment, ACTIONS 9), (sym__documentation_block_comment, ACTIONS 11)]"

lemma row_ok_313: "table_row_ok 313 ts_parse_table_313"
  by (simp add: row_simps ts_parse_table_313_def)

definition ts_parse_table_314 :: table_row where
  "ts_parse_table_314 = [
     (sym__bool_literal, STATE 1115), (sym__numeric_literal, STATE 1115),
     (sym__literal, STATE 1135), (sym_symbol_literal, STATE 1115), (sym_true, STATE 1165),
     (sym_false, STATE 1165), (sym_string_literal, STATE 1115),
     (sym__string_literal_double_quotes, STATE 729),
     (sym__string_literal_single_quotes, STATE 729),
     (sym__string_literal_double_quotes_multiple, STATE 729),
     (sym__string_literal_single_quotes_multiple, STATE 729),
     (sym__raw_string_literal_double_quotes, STATE 729),
     (sym__raw_string_literal_single_quotes, STATE 729),
     (sym__raw_string_literal_double_quotes_multiple, STATE 729),
     (sym__raw_string_literal_single_quotes_multiple, STATE 729), (sym_list_literal, STATE 1115),
     (sym_set_or_map_literal, STATE 1115), (sym_null_literal, STATE 1115),
     (sym_record_literal, STATE 1115), (sym__record_literal_no_const, STATE 1187),
     (sym__real_expression, STATE 569), (sym_assignable_expression, STATE 3249),
     (sym_function_expression, STATE 1135), (sym_if_null_expression, STATE 1117),
     (sym_conditional_expression, STATE 1117), (sym_logical_or_expression, STATE 1117),
     (sym_logical_and_expression, STATE 1117), (sym_equality_expression, STATE 1117),
     (sym_type_cast_expression, STATE 1117), (sym_type_test_expression, STATE 1117),
     (sym_relational_expression, STATE 1117), (sym_bitwise_or_expression, STATE 1117),
     (sym_bitwise_xor_expression, STATE 1117), (sym_bitwise_and_expression, STATE 1117),
     (sym_shift_expression, STATE 1117), (sym_additive_expression, STATE 1117),
     (sym_multiplicative_expression, STATE 1117), (sym__unary_expression, STATE 902),
     (sym_unary_expression, STATE 1114), (sym__postfix_expression, STATE 1114),
     (sym_postfix_expression, STATE 1098), (sym_prefix_operator, STATE 417),
     (sym_negation_operator, STATE 1450), (sym__exclamation_operator, STATE 1451),
     (sym_tilde_operator, STATE 1359), (sym_await_expression, STATE 1093),
     (sym_new_expression, STATE 1135), (sym_const_object_expression, STATE 1135),
     (sym__primary, STATE 701), (sym_parenthesized_expression, STATE 1135),
     (sym_constructor_invocation, STATE 691), (sym_constructor_tearoff, STATE 1135),
     (sym_type_arguments, STATE 3081), (sym_switch_expression, STATE 1135),
     (sym_type_parameters, STATE 2932), (sym__type_name, STATE 2826),
     (sym__formal_parameter_part, STATE 2358), (sym_formal_parameter_list, STATE 2020),
     (sym__strict_formal_parameter_list, STATE 2016), (sym__new_builtin, STATE 2074),
     (sym_this, STATE 1135), (sym_super, STATE 1346), (sym_comment, STATE 314),
     (sym_documentation_comment, STATE 314), (aux_sym_string_literal_repeat1, STATE 595),
     (sym_identifier, ACTIONS 846), (anon_sym_POUND, ACTIONS 698),
     (sym_decimal_integer_literal, ACTIONS 700), (sym_hex_integer_literal, ACTIONS 702),
     (sym_decimal_floating_point_literal, ACTIONS 700), (anon_sym_true, ACTIONS 704),
     (anon_sym_false, ACTIONS 706), (anon_sym_DQUOTE, ACTIONS 708),
     (anon_sym_SQUOTE, ACTIONS 710), (anon_sym_DQUOTE_DQUOTE_DQUOTE, ACTIONS 712),
     (anon_sym_SQUOTE_SQUOTE_SQUOTE, ACTIONS 714), (anon_sym_r_DQUOTE, ACTIONS 716),
     (anon_sym_r_SQUOTE, ACTIONS 718), (anon_sym_r_DQUOTE_DQUOTE_DQUOTE, ACTIONS 720),
     (anon_sym_r_SQUOTE_SQUOTE_SQUOTE, ACTIONS 722), (anon_sym_LBRACE, ACTIONS 756),
     (anon_sym_LBRACK, ACTIONS 758), (anon_sym_null, ACTIONS 728),
     (anon_sym_LPAREN, ACTIONS 760), (anon_sym_LT, ACTIONS 111),
     (sym_increment_operator, ACTIONS 734), (sym_minus_operator, ACTIONS 736),
     (anon_sym_BANG, ACTIONS 119), (anon_sym_TILDE, ACTIONS 121), (anon_sym_await, ACTIONS 738),
     (anon_sym_switch, ACTIONS 740), (anon_sym_new, ACTIONS 155),
     (sym_const_builtin, ACTIONS 744), (anon_sym_this, ACTIONS 746),
     (anon_sym_super, ACTIONS 161), (anon_sym_SLASH_SLASH, ACTIONS 3),
     (anon_sym_SLASH_STAR, ACTIONS 5), (anon_sym_SLASH_SLASH_SLASH, ACTIONS 7),
     (sym__block_comment, ACTIONS 9), (sym__documentation_block_comment, ACTIONS 11)]"

lemma row_ok_314: "table_row_ok 314 ts_parse_table_314"
  by (simp add: row_simps ts_parse_table_314_def)

definition ts_parse_table_315 :: table_row where
  "ts_parse_table_315 = [
     (sym__bool_literal, STATE 989), (sym__numeric_literal, STATE 989),
     (sym__literal, STATE 962), (sym_symbol_literal, STATE 989), (sym_true, STATE 900),
     (sym_false, STATE 900), (sym_string_literal, STATE 989),
     (sym__string_literal_double_quotes, STATE 627),
     (sym__string_literal_single_quotes, STATE 627),
     (sym__string_literal_double_quotes_multiple, STATE 627),
     (sym__string_literal_single_quotes_multiple, STATE 627),
     (sym__raw_string_literal_double_quotes, STATE 627),
     (sym__raw_string_literal_single_quotes, STATE 627),
     (sym__raw_string_literal_double_quotes_multiple, STATE 627),
     (sym__raw_string_literal_single_quotes_multiple, STATE 627), (sym_list_literal, STATE 989),
     (sym_set_or_map_literal, STATE 989), (sym_null_literal, STATE 989),
     (sym_record_literal, STATE 989), (sym__record_literal_no_const, STATE 924),
     (sym__real_expression, STATE 698), (sym_assignable_expression, STATE 3122),
     (sym_function_expression, STATE 962), (sym_if_null_expression, STATE 1477),
     (sym_conditional_expression, STATE 1477), (sym_logical_or_expression, STATE 1477),
     (sym_logical_and_expression, STATE 1477), (sym_equality_expression, STATE 1477),
     (sym_type_cast_expression, STATE 1477), (sym_type_test_expression, STATE 1477),
     (sym_relational_expression, STATE 1477), (sym_bitwise_or_expression, STATE 1477),
     (sym_bitwise_xor_expression, STATE 1477), (sym_bitwise_and_expression, STATE 1477),
     (sym_shift_expression, STATE 1477), (sym_additive_expression, STATE 1477),
     (sym_multiplicative_expression, STATE 1477), (sym__unary_expression, STATE 1121),
     (sym_unary_expression, STATE 1303), (sym__postfix_expression, STATE 1303),
     (sym_postfix_expression, STATE 1301), (sym_prefix_operator, STATE 431),
     (sym_negation_operator, STATE 1450), (sym__exclamation_operator, STATE 1451),
     (sym_tilde_operator, STATE 1385), (sym_await_expression, STATE 1302),
     (sym_new_expression, STATE 962), (sym_const_object_expression, STATE 962),
     (sym__primary, STATE 674), (sym_parenthesized_expression, STATE 962),
     (sym_constructor_invocation, STATE 654), (sym_constructor_tearoff, STATE 962),
     (sym_type_arguments, STATE 3146), (sym_switch_expression, STATE 962),
     (sym_type_parameters, STATE 2932), (sym__type_name, STATE 2859),
     (sym__formal_parameter_part, STATE 2339), (sym_formal_parameter_list, STATE 2020),
     (sym__strict_formal_parameter_list, STATE 2016), (sym__new_builtin, STATE 2079),
     (sym_this, STATE 962), (sym_super, STATE 1322), (sym_comment, STATE 315),
     (sym_documentation_comment, STATE 315), (aux_sym_string_literal_repeat1, STATE 474),
     (sym_identifier, ACTIONS 844), (anon_sym_POUND, ACTIONS 73),
     (sym_decimal_integer_literal, ACTIONS 75), (sym_hex_integer_literal, ACTIONS 77),
     (sym_decimal_floating_point_literal, ACTIONS 75), (anon_sym_true, ACTIONS 79),
     (anon_sym_false, ACTIONS 81), (anon_sym_DQUOTE, ACTIONS 83), (anon_sym_SQUOTE, ACTIONS 85),
     (anon_sym_DQUOTE_DQUOTE_DQUOTE, ACTIONS 87), (anon_sym_SQUOTE_SQUOTE_SQUOTE, ACTIONS 89),
     (anon_sym_r_DQUOTE, ACTIONS 91), (anon_sym_r_SQUOTE, ACTIONS 93),
     (anon_sym_r_DQUOTE_DQUOTE_DQUOTE, ACTIONS 95),
     (anon_sym_r_SQUOTE_SQUOTE_SQUOTE, ACTIONS 97), (anon_sym_LBRACE, ACTIONS 766),
     (anon_sym_LBRACK, ACTIONS 768), (anon_sym_null, ACTIONS 105),
     (anon_sym_LPAREN, ACTIONS 770), (anon_sym_LT, ACTIONS 111),
     (sym_increment_operator, ACTIONS 113), (sym_minus_operator, ACTIONS 117),
     (anon_sym_BANG, ACTIONS 119), (anon_sym_TILDE, ACTIONS 121), (anon_sym_await, ACTIONS 432),
     (anon_sym_switch, ACTIONS 412), (anon_sym_new, ACTIONS 155),
     (sym_const_builtin, ACTIONS 478), (anon_sym_this, ACTIONS 159),
     (anon_sym_super, ACTIONS 161), (anon_sym_SLASH_SLASH, ACTIONS 3),
     (anon_sym_SLASH_STAR, ACTIONS 5), (anon_sym_SLASH_SLASH_SLASH, ACTIONS 7),
     (sym__block_comment, ACTIONS 9), (sym__documentation_block_comment, ACTIONS 11)]"

lemma row_ok_315: "table_row_ok 315 ts_parse_table_315"
  by (simp add: row_simps ts_parse_table_315_def)

definition ts_parse_table_316 :: table_row where
  "ts_parse_table_316 = [
     (sym__bool_literal, STATE 989), (sym__numeric_literal, STATE 989),
     (sym__literal, STATE 962), (sym_symbol_literal, STATE 989), (sym_true, STATE 900),
     (sym_false, STATE 900), (sym_string_literal, STATE 989),
     (sym__string_literal_double_quotes, STATE 627),
     (sym__string_literal_single_quotes, STATE 627),
     (sym__string_literal_double_quotes_multiple, STATE 627),
     (sym__string_literal_single_quotes_multiple, STATE 627),
     (sym__raw_string_literal_double_quotes, STATE 627),
     (sym__raw_string_literal_single_quotes, STATE 627),
     (sym__raw_string_literal_double_quotes_multiple, STATE 627),
     (sym__raw_string_literal_single_quotes_multiple, STATE 627), (sym_list_literal, STATE 989),
     (sym_set_or_map_literal, STATE 989), (sym_null_literal, STATE 989),
     (sym_record_literal, STATE 989), (sym__record_literal_no_const, STATE 924),
     (sym__real_expression, STATE 688), (sym_assignable_expression, STATE 3122),
     (sym_function_expression, STATE 962), (sym_if_null_expression, STATE 1477),
     (sym_conditional_expression, STATE 1477), (sym_logical_or_expression, STATE 1477),
     (sym_logical_and_expression, STATE 1477), (sym_equality_expression, STATE 1477),
     (sym_type_cast_expression, STATE 1477), (sym_type_test_expression, STATE 1477),
     (sym_relational_expression, STATE 1477), (sym_bitwise_or_expression, STATE 1477),
     (sym_bitwise_xor_expression, STATE 1477), (sym_bitwise_and_expression, STATE 1477),
     (sym_shift_expression, STATE 1477), (sym_additive_expression, STATE 1477),
     (sym_multiplicative_expression, STATE 1477), (sym__unary_expression, STATE 1121),
     (sym_unary_expression, STATE 1303), (sym__postfix_expression, STATE 1303),
     (sym_postfix_expression, STATE 1301), (sym_prefix_operator, STATE 431),
     (sym_negation_operator, STATE 1450), (sym__exclamation_operator, STATE 1451),
     (sym_tilde_operator, STATE 1385), (sym_await_expression, STATE 1302),
     (sym_new_expression, STATE 962), (sym_const_object_expression, STATE 962),
     (sym__primary, STATE 674), (sym_parenthesized_expression, STATE 962),
     (sym_constructor_invocation, STATE 654), (sym_constructor_tearoff, STATE 962),
     (sym_type_arguments, STATE 3146), (sym_switch_expression, STATE 962),
     (sym_type_parameters, STATE 2932), (sym__type_name, STATE 2859),
     (sym__formal_parameter_part, STATE 2339), (sym_formal_parameter_list, STATE 2020),
     (sym__strict_formal_parameter_list, STATE 2016), (sym__new_builtin, STATE 2079),
     (sym_this, STATE 962), (sym_super, STATE 1322), (sym_comment, STATE 316),
     (sym_documentation_comment, STATE 316), (aux_sym_string_literal_repeat1, STATE 474),
     (sym_identifier, ACTIONS 844), (anon_sym_POUND, ACTIONS 73),
     (sym_decimal_integer_literal, ACTIONS 75), (sym_hex_integer_literal, ACTIONS 77),
     (sym_decimal_floating_point_literal, ACTIONS 75), (anon_sym_true, ACTIONS 79),
     (anon_sym_false, ACTIONS 81), (anon_sym_DQUOTE, ACTIONS 83), (anon_sym_SQUOTE, ACTIONS 85),
     (anon_sym_DQUOTE_DQUOTE_DQUOTE, ACTIONS 87), (anon_sym_SQUOTE_SQUOTE_SQUOTE, ACTIONS 89),
     (anon_sym_r_DQUOTE, ACTIONS 91), (anon_sym_r_SQUOTE, ACTIONS 93),
     (anon_sym_r_DQUOTE_DQUOTE_DQUOTE, ACTIONS 95),
     (anon_sym_r_SQUOTE_SQUOTE_SQUOTE, ACTIONS 97), (anon_sym_LBRACE, ACTIONS 766),
     (anon_sym_LBRACK, ACTIONS 768), (anon_sym_null, ACTIONS 105),
     (anon_sym_LPAREN, ACTIONS 770), (anon_sym_LT, ACTIONS 111),
     (sym_increment_operator, ACTIONS 113), (sym_minus_operator, ACTIONS 117),
     (anon_sym_BANG, ACTIONS 119), (anon_sym_TILDE, ACTIONS 121), (anon_sym_await, ACTIONS 432),
     (anon_sym_switch, ACTIONS 412), (anon_sym_new, ACTIONS 155),
     (sym_const_builtin, ACTIONS 478), (anon_sym_this, ACTIONS 159),
     (anon_sym_super, ACTIONS 161), (anon_sym_SLASH_SLASH, ACTIONS 3),
     (anon_sym_SLASH_STAR, ACTIONS 5), (anon_sym_SLASH_SLASH_SLASH, ACTIONS 7),
     (sym__block_comment, ACTIONS 9), (sym__documentation_block_comment, ACTIONS 11)]"

lemma row_ok_316: "table_row_ok 316 ts_parse_table_316"
  by (simp add: row_simps ts_parse_table_316_def)

definition ts_parse_table_317 :: table_row where
  "ts_parse_table_317 = [
     (sym__bool_literal, STATE 1115), (sym__numeric_literal, STATE 1115),
     (sym__literal, STATE 1135), (sym_symbol_literal, STATE 1115), (sym_true, STATE 1165),
     (sym_false, STATE 1165), (sym_string_literal, STATE 1115),
     (sym__string_literal_double_quotes, STATE 729),
     (sym__string_literal_single_quotes, STATE 729),
     (sym__string_literal_double_quotes_multiple, STATE 729),
     (sym__string_literal_single_quotes_multiple, STATE 729),
     (sym__raw_string_literal_double_quotes, STATE 729),
     (sym__raw_string_literal_single_quotes, STATE 729),
     (sym__raw_string_literal_double_quotes_multiple, STATE 729),
     (sym__raw_string_literal_single_quotes_multiple, STATE 729), (sym_list_literal, STATE 1115),
     (sym_set_or_map_literal, STATE 1115), (sym_null_literal, STATE 1115),
     (sym_record_literal, STATE 1115), (sym__record_literal_no_const, STATE 1187),
     (sym__real_expression, STATE 572), (sym_assignable_expression, STATE 3249),
     (sym_function_expression, STATE 1135), (sym_if_null_expression, STATE 1117),
     (sym_conditional_expression, STATE 1117), (sym_logical_or_expression, STATE 1117),
     (sym_logical_and_expression, STATE 1117), (sym_equality_expression, STATE 1117),
     (sym_type_cast_expression, STATE 1117), (sym_type_test_expression, STATE 1117),
     (sym_relational_expression, STATE 1117), (sym_bitwise_or_expression, STATE 1117),
     (sym_bitwise_xor_expression, STATE 1117), (sym_bitwise_and_expression, STATE 1117),
     (sym_shift_expression, STATE 1117), (sym_additive_expression, STATE 1117),
     (sym_multiplicative_expression, STATE 1117), (sym__unary_expression, STATE 902),
     (sym_unary_expression, STATE 1114), (sym__postfix_expression, STATE 1114),
     (sym_postfix_expression, STATE 1098), (sym_prefix_operator, STATE 417),
     (sym_negation_operator, STATE 1450), (sym__exclamation_operator, STATE 1451),
     (sym_tilde_operator, STATE 1359), (sym_await_expression, STATE 1093),
     (sym_new_expression, STATE 1135), (sym_const_object_expression, STATE 1135),
     (sym__primary, STATE 701), (sym_parenthesized_expression, STATE 1135),
     (sym_constructor_invocation, STATE 691), (sym_constructor_tearoff, STATE 1135),
     (sym_type_arguments, STATE 3081), (sym_switch_expression, STATE 1135),
     (sym_type_parameters, STATE 2932), (sym__type_name, STATE 2826),
     (sym__formal_parameter_part, STATE 2358), (sym_formal_parameter_list, STATE 2020),
     (sym__strict_formal_parameter_list, STATE 2016), (sym__new_builtin, STATE 2074),
     (sym_this, STATE 1135), (sym_super, STATE 1346), (sym_comment, STATE 317),
     (sym_documentation_comment, STATE 317), (aux_sym_string_literal_repeat1, STATE 595),
     (sym_identifier, ACTIONS 846), (anon_sym_POUND, ACTIONS 698),
     (sym_decimal_integer_literal, ACTIONS 700), (sym_hex_integer_literal, ACTIONS 702),
     (sym_decimal_floating_point_literal, ACTIONS 700), (anon_sym_true, ACTIONS 704),
     (anon_sym_false, ACTIONS 706), (anon_sym_DQUOTE, ACTIONS 708),
     (anon_sym_SQUOTE, ACTIONS 710), (anon_sym_DQUOTE_DQUOTE_DQUOTE, ACTIONS 712),
     (anon_sym_SQUOTE_SQUOTE_SQUOTE, ACTIONS 714), (anon_sym_r_DQUOTE, ACTIONS 716),
     (anon_sym_r_SQUOTE, ACTIONS 718), (anon_sym_r_DQUOTE_DQUOTE_DQUOTE, ACTIONS 720),
     (anon_sym_r_SQUOTE_SQUOTE_SQUOTE, ACTIONS 722), (anon_sym_LBRACE, ACTIONS 756),
     (anon_sym_LBRACK, ACTIONS 758), (anon_sym_null, ACTIONS 728),
     (anon_sym_LPAREN, ACTIONS 760), (anon_sym_LT, ACTIONS 111),
     (sym_increment_operator, ACTIONS 734), (sym_minus_operator, ACTIONS 736),
     (anon_sym_BANG, ACTIONS 119), (anon_sym_TILDE, ACTIONS 121), (anon_sym_await, ACTIONS 738),
     (anon_sym_switch, ACTIONS 740), (anon_sym_new, ACTIONS 155),
     (sym_const_builtin, ACTIONS 744), (anon_sym_this, ACTIONS 746),
     (anon_sym_super, ACTIONS 161), (anon_sym_SLASH_SLASH, ACTIONS 3),
     (anon_sym_SLASH_STAR, ACTIONS 5), (anon_sym_SLASH_SLASH_SLASH, ACTIONS 7),
     (sym__block_comment, ACTIONS 9), (sym__documentation_block_comment, ACTIONS 11)]"

lemma row_ok_317: "table_row_ok 317 ts_parse_table_317"
  by (simp add: row_simps ts_parse_table_317_def)

definition ts_parse_table_318 :: table_row where
  "ts_parse_table_318 = [
     (sym__bool_literal, STATE 989), (sym__numeric_literal, STATE 989),
     (sym__literal, STATE 962), (sym_symbol_literal, STATE 989), (sym_true, STATE 900),
     (sym_false, STATE 900), (sym_string_literal, STATE 989),
     (sym__string_literal_double_quotes, STATE 627),
     (sym__string_literal_single_quotes, STATE 627),
     (sym__string_literal_double_quotes_multiple, STATE 627),
     (sym__string_literal_single_quotes_multiple, STATE 627),
     (sym__raw_string_literal_double_quotes, STATE 627),
     (sym__raw_string_literal_single_quotes, STATE 627),
     (sym__raw_string_literal_double_quotes_multiple, STATE 627),
     (sym__raw_string_literal_single_quotes_multiple, STATE 627), (sym_list_literal, STATE 989),
     (sym_set_or_map_literal, STATE 989), (sym_null_literal, STATE 989),
     (sym_record_literal, STATE 989), (sym__record_literal_no_const, STATE 924),
     (sym__real_expression, STATE 686), (sym_assignable_expression, STATE 3122),
     (sym_function_expression, STATE 962), (sym_if_null_expression, STATE 1477),
     (sym_conditional_expression, STATE 1477), (sym_logical_or_expression, STATE 1477),
     (sym_logical_and_expression, STATE 1477), (sym_equality_expression, STATE 1477),
     (sym_type_cast_expression, STATE 1477), (sym_type_test_expression, STATE 1477),
     (sym_relational_expression, STATE 1477), (sym_bitwise_or_expression, STATE 1477),
     (sym_bitwise_xor_expression, STATE 1477), (sym_bitwise_and_expression, STATE 1477),
     (sym_shift_expression, STATE 1477), (sym_additive_expression, STATE 1477),
     (sym_multiplicative_expression, STATE 1477), (sym__unary_expression, STATE 1121),
     (sym_unary_expression, STATE 1303), (sym__postfix_expression, STATE 1303),
     (sym_postfix_expression, STATE 1301), (sym_prefix_operator, STATE 431),
     (sym_negation_operator, STATE 1450), (sym__exclamation_operator, STATE 1451),
     (sym_tilde_operator, STATE 1385), (sym_await_expression, STATE 1302),
     (sym_new_expression, STATE 962), (sym_const_object_expression, STATE 962),
     (sym__primary, STATE 674), (sym_parenthesized_expression, STATE 962),
     (sym_constructor_invocation, STATE 654), (sym_constructor_tearoff, STATE 962),
     (sym_type_arguments, STATE 3146), (sym_switch_expression, STATE 962),
     (sym_type_parameters, STATE 2932), (sym__type_name, STATE 2859),
     (sym__formal_parameter_part, STATE 2339), (sym_formal_parameter_list, STATE 2020),
     (sym__strict_formal_parameter_list, STATE 2016), (sym__new_builtin, STATE 2079),
     (sym_this, STATE 962), (sym_super, STATE 1322), (sym_comment, STATE 318),
     (sym_documentation_comment, STATE 318), (aux_sym_string_literal_repeat1, STATE 474),
     (sym_identifier, ACTIONS 844), (anon_sym_POUND, ACTIONS 73),
     (sym_decimal_integer_literal, ACTIONS 75), (sym_hex_integer_literal, ACTIONS 77),
     (sym_decimal_floating_point_literal, ACTIONS 75), (anon_sym_true, ACTIONS 79),
     (anon_sym_false, ACTIONS 81), (anon_sym_DQUOTE, ACTIONS 83), (anon_sym_SQUOTE, ACTIONS 85),
     (anon_sym_DQUOTE_DQUOTE_DQUOTE, ACTIONS 87), (anon_sym_SQUOTE_SQUOTE_SQUOTE, ACTIONS 89),
     (anon_sym_r_DQUOTE, ACTIONS 91), (anon_sym_r_SQUOTE, ACTIONS 93),
     (anon_sym_r_DQUOTE_DQUOTE_DQUOTE, ACTIONS 95),
     (anon_sym_r_SQUOTE_SQUOTE_SQUOTE, ACTIONS 97), (anon_sym_LBRACE, ACTIONS 766),
     (anon_sym_LBRACK, ACTIONS 768), (anon_sym_null, ACTIONS 105),
     (anon_sym_LPAREN, ACTIONS 770), (anon_sym_LT, ACTIONS 111),
     (sym_increment_operator, ACTIONS 113), (sym_minus_operator, ACTIONS 117),
     (anon_sym_BANG, ACTIONS 119), (anon_sym_TILDE, ACTIONS 121), (anon_sym_await, ACTIONS 432),
     (anon_sym_switch, ACTIONS 412), (anon_sym_new, ACTIONS 155),
     (sym_const_builtin, ACTIONS 478), (anon_sym_this, ACTIONS 159),
     (anon_sym_super, ACTIONS 161), (anon_sym_SLASH_SLASH, ACTIONS 3),
     (anon_sym_SLASH_STAR, ACTIONS 5), (anon_sym_SLASH_SLASH_SLASH, ACTIONS 7),
     (sym__block_comment, ACTIONS 9), (sym__documentation_block_comment, ACTIONS 11)]"

lemma row_ok_318: "table_row_ok 318 ts_parse_table_318"
  by (simp add: row_simps ts_parse_table_318_def)

definition ts_parse_table_319 :: table_row where
  "ts_parse_table_319 = [
     (sym__bool_literal, STATE 1115), (sym__numeric_literal, STATE 1115),
     (sym__literal, STATE 1135), (sym_symbol_literal, STATE 1115), (sym_true, STATE 1165),
     (sym_false, STATE 1165), (sym_string_literal, STATE 1115),
     (sym__string_literal_double_quotes, STATE 729),
     (sym__string_literal_single_quotes, STATE 729),
     (sym__string_literal_double_quotes_multiple, STATE 729),
     (sym__string_literal_single_quotes_multiple, STATE 729),
     (sym__raw_string_literal_double_quotes, STATE 729),
     (sym__raw_string_literal_single_quotes, STATE 729),
     (sym__raw_string_literal_double_quotes_multiple, STATE 729),
     (sym__raw_string_literal_single_quotes_multiple, STATE 729), (sym_list_literal, STATE 1115),
     (sym_set_or_map_literal, STATE 1115), (sym_null_literal, STATE 1115),
     (sym_record_literal, STATE 1115), (sym__record_literal_no_const, STATE 1187),
     (sym__real_expression, STATE 553), (sym_assignable_expression, STATE 3249),
     (sym_function_expression, STATE 1135), (sym_if_null_expression, STATE 1117),
     (sym_conditional_expression, STATE 1117), (sym_logical_or_expression, STATE 1117),
     (sym_logical_and_expression, STATE 1117), (sym_equality_expression, STATE 1117),
     (sym_type_cast_expression, STATE 1117), (sym_type_test_expression, STATE 1117),
     (sym_relational_expression, STATE 1117), (sym_bitwise_or_expression, STATE 1117),
     (sym_bitwise_xor_expression, STATE 1117), (sym_bitwise_and_expression, STATE 1117),
     (sym_shift_expression, STATE 1117), (sym_additive_expression, STATE 1117),
     (sym_multiplicative_expression, STATE 1117), (sym__unary_expression, STATE 902),
     (sym_unary_expression, STATE 1114), (sym__postfix_expression, STATE 1114),
     (sym_postfix_expression, STATE 1098), (sym_prefix_operator, STATE 417),
     (sym_negation_operator, STATE 1450), (sym__exclamation_operator, STATE 1451),
     (sym_tilde_operator, STATE 1359), (sym_await_expression, STATE 1093),
     (sym_new_expression, STATE 1135), (sym_const_object_expression, STATE 1135),
     (sym__primary, STATE 701), (sym_parenthesized_expression, STATE 1135),
     (sym_constructor_invocation, STATE 691), (sym_constructor_tearoff, STATE 1135),
     (sym_type_arguments, STATE 3081), (sym_switch_expression, STATE 1135),
     (sym_type_parameters, STATE 2932), (sym__type_name, STATE 2826),
     (sym__formal_parameter_part, STATE 2358), (sym_formal_parameter_list, STATE 2020),
     (sym__strict_formal_parameter_list, STATE 2016), (sym__new_builtin, STATE 2074),
     (sym_this, STATE 1135), (sym_super, STATE 1346), (sym_comment, STATE 319),
     (sym_documentation_comment, STATE 319), (aux_sym_string_literal_repeat1, STATE 595),
     (sym_identifier, ACTIONS 846), (anon_sym_POUND, ACTIONS 698),
     (sym_decimal_integer_literal, ACTIONS 700), (sym_hex_integer_literal, ACTIONS 702),
     (sym_decimal_floating_point_literal, ACTIONS 700), (anon_sym_true, ACTIONS 704),
     (anon_sym_false, ACTIONS 706), (anon_sym_DQUOTE, ACTIONS 708),
     (anon_sym_SQUOTE, ACTIONS 710), (anon_sym_DQUOTE_DQUOTE_DQUOTE, ACTIONS 712),
     (anon_sym_SQUOTE_SQUOTE_SQUOTE, ACTIONS 714), (anon_sym_r_DQUOTE, ACTIONS 716),
     (anon_sym_r_SQUOTE, ACTIONS 718), (anon_sym_r_DQUOTE_DQUOTE_DQUOTE, ACTIONS 720),
     (anon_sym_r_SQUOTE_SQUOTE_SQUOTE, ACTIONS 722), (anon_sym_LBRACE, ACTIONS 756),
     (anon_sym_LBRACK, ACTIONS 758), (anon_sym_null, ACTIONS 728),
     (anon_sym_LPAREN, ACTIONS 760), (anon_sym_LT, ACTIONS 111),
     (sym_increment_operator, ACTIONS 734), (sym_minus_operator, ACTIONS 736),
     (anon_sym_BANG, ACTIONS 119), (anon_sym_TILDE, ACTIONS 121), (anon_sym_await, ACTIONS 738),
     (anon_sym_switch, ACTIONS 740), (anon_sym_new, ACTIONS 155),
     (sym_const_builtin, ACTIONS 744), (anon_sym_this, ACTIONS 746),
     (anon_sym_super, ACTIONS 161), (anon_sym_SLASH_SLASH, ACTIONS 3),
     (anon_sym_SLASH_STAR, ACTIONS 5), (anon_sym_SLASH_SLASH_SLASH, ACTIONS 7),
     (sym__block_comment, ACTIONS 9), (sym__documentation_block_comment, ACTIONS 11)]"

lemma row_ok_319: "table_row_ok 319 ts_parse_table_319"
  by (simp add: row_simps ts_parse_table_319_def)

definition ts_parse_table_320 :: table_row where
  "ts_parse_table_320 = [
     (sym__bool_literal, STATE 989), (sym__numeric_literal, STATE 989),
     (sym__literal, STATE 962), (sym_symbol_literal, STATE 989), (sym_true, STATE 900),
     (sym_false, STATE 900), (sym_string_literal, STATE 989),
     (sym__string_literal_double_quotes, STATE 627),
     (sym__string_literal_single_quotes, STATE 627),
     (sym__string_literal_double_quotes_multiple, STATE 627),
     (sym__string_literal_single_quotes_multiple, STATE 627),
     (sym__raw_string_literal_double_quotes, STATE 627),
     (sym__raw_string_literal_single_quotes, STATE 627),
     (sym__raw_string_literal_double_quotes_multiple, STATE 627),
     (sym__raw_string_literal_single_quotes_multiple, STATE 627), (sym_list_literal, STATE 989),
     (sym_set_or_map_literal, STATE 989), (sym_null_literal, STATE 989),
     (sym_record_literal, STATE 989), (sym__record_literal_no_const, STATE 924),
     (sym__real_expression, STATE 697), (sym_assignable_expression, STATE 3122),
     (sym_function_expression, STATE 962), (sym_if_null_expression, STATE 1477),
     (sym_conditional_expression, STATE 1477), (sym_logical_or_expression, STATE 1477),
     (sym_logical_and_expression, STATE 1477), (sym_equality_expression, STATE 1477),
     (sym_type_cast_expression, STATE 1477), (sym_type_test_expression, STATE 1477),
     (sym_relational_expression, STATE 1477), (sym_bitwise_or_expression, STATE 1477),
     (sym_bitwise_xor_expression, STATE 1477), (sym_bitwise_and_expression, STATE 1477),
     (sym_shift_expression, STATE 1477), (sym_additive_expression, STATE 1477),
     (sym_multiplicative_expression, STATE 1477), (sym__unary_expression, STATE 1121),
     (sym_unary_expression, STATE 1303), (sym__postfix_expression, STATE 1303),
     (sym_postfix_expression, STATE 1301), (sym_prefix_operator, STATE 431),
     (sym_negation_operator, STATE 1450), (sym__exclamation_operator, STATE 1451),
     (sym_tilde_operator, STATE 1385), (sym_await_expression, STATE 1302),
     (sym_new_expression, STATE 962), (sym_const_object_expression, STATE 962),
     (sym__primary, STATE 674), (sym_parenthesized_expression, STATE 962),
     (sym_constructor_invocation, STATE 654), (sym_constructor_tearoff, STATE 962),
     (sym_type_arguments, STATE 3146), (sym_switch_expression, STATE 962),
     (sym_type_parameters, STATE 2932), (sym__type_name, STATE 2859),
     (sym__formal_parameter_part, STATE 2339), (sym_formal_parameter_list, STATE 2020),
     (sym__strict_formal_parameter_list, STATE 2016), (sym__new_builtin, STATE 2079),
     (sym_this, STATE 962), (sym_super, STATE 1322), (sym_comment, STATE 320),
     (sym_documentation_comment, STATE 320), (aux_sym_string_literal_repeat1, STATE 474),
     (sym_identifier, ACTIONS 844), (anon_sym_POUND, ACTIONS 73),
     (sym_decimal_integer_literal, ACTIONS 75), (sym_hex_integer_literal, ACTIONS 77),
     (sym_decimal_floating_point_literal, ACTIONS 75), (anon_sym_true, ACTIONS 79),
     (anon_sym_false, ACTIONS 81), (anon_sym_DQUOTE, ACTIONS 83), (anon_sym_SQUOTE, ACTIONS 85),
     (anon_sym_DQUOTE_DQUOTE_DQUOTE, ACTIONS 87), (anon_sym_SQUOTE_SQUOTE_SQUOTE, ACTIONS 89),
     (anon_sym_r_DQUOTE, ACTIONS 91), (anon_sym_r_SQUOTE, ACTIONS 93),
     (anon_sym_r_DQUOTE_DQUOTE_DQUOTE, ACTIONS 95),
     (anon_sym_r_SQUOTE_SQUOTE_SQUOTE, ACTIONS 97), (anon_sym_LBRACE, ACTIONS 766),
     (anon_sym_LBRACK, ACTIONS 768), (anon_sym_null, ACTIONS 105),
     (anon_sym_LPAREN, ACTIONS 770), (anon_sym_LT, ACTIONS 111),
     (sym_increment_operator, ACTIONS 113), (sym_minus_operator, ACTIONS 117),
     (anon_sym_BANG, ACTIONS 119), (anon_sym_TILDE, ACTIONS 121), (anon_sym_await, ACTIONS 432),
     (anon_sym_switch, ACTIONS 412), (anon_sym_new, ACTIONS 155),
     (sym_const_builtin, ACTIONS 478), (anon_sym_this, ACTIONS 159),
     (anon_sym_super, ACTIONS 161), (anon_sym_SLASH_SLASH, ACTIONS 3),
     (anon_sym_SLASH_STAR, ACTIONS 5), (anon_sym_SLASH_SLASH_SLASH, ACTIONS 7),
     (sym__block_comment, ACTIONS 9), (sym__documentation_block_comment, ACTIONS 11)]"

lemma row_ok_320: "table_row_ok 320 ts_parse_table_320"
  by (simp add: row_simps ts_parse_table_320_def)

definition ts_parse_table_321 :: table_row where
  "ts_parse_table_321 = [
     (sym__bool_literal, STATE 1115), (sym__numeric_literal, STATE 1115),
     (sym__literal, STATE 1135), (sym_symbol_literal, STATE 1115), (sym_true, STATE 1165),
     (sym_false, STATE 1165), (sym_string_literal, STATE 1115),
     (sym__string_literal_double_quotes, STATE 729),
     (sym__string_literal_single_quotes, STATE 729),
     (sym__string_literal_double_quotes_multiple, STATE 729),
     (sym__string_literal_single_quotes_multiple, STATE 729),
     (sym__raw_string_literal_double_quotes, STATE 729),
     (sym__raw_string_literal_single_quotes, STATE 729),
     (sym__raw_string_literal_double_quotes_multiple, STATE 729),
     (sym__raw_string_literal_single_quotes_multiple, STATE 729), (sym_list_literal, STATE 1115),
     (sym_set_or_map_literal, STATE 1115), (sym_null_literal, STATE 1115),
     (sym_record_literal, STATE 1115), (sym__record_literal_no_const, STATE 1187),
     (sym__real_expression, STATE 574), (sym_assignable_expression, STATE 3249),
     (sym_function_expression, STATE 1135), (sym_if_null_expression, STATE 1117),
     (sym_conditional_expression, STATE 1117), (sym_logical_or_expression, STATE 1117),
     (sym_logical_and_expression, STATE 1117), (sym_equality_expression, STATE 1117),
     (sym_type_cast_expression, STATE 1117), (sym_type_test_expression, STATE 1117),
     (sym_relational_expression, STATE 1117), (sym_bitwise_or_expression, STATE 1117),
     (sym_bitwise_xor_expression, STATE 1117), (sym_bitwise_and_expression, STATE 1117),
     (sym_shift_expression, STATE 1117), (sym_additive_expression, STATE 1117),
     (sym_multiplicative_expression, STATE 1117), (sym__unary_expression, STATE 902),
     (sym_unary_expression, STATE 1114), (sym__postfix_expression, STATE 1114),
     (sym_postfix_expression, STATE 1098), (sym_prefix_operator, STATE 417),
     (sym_negation_operator, STATE 1450), (sym__exclamation_operator, STATE 1451),
     (sym_tilde_operator, STATE 1359), (sym_await_expression, STATE 1093),
     (sym_new_expression, STATE 1135), (sym_const_object_expression, STATE 1135),
     (sym__primary, STATE 701), (sym_parenthesized_expression, STATE 1135),
     (sym_constructor_invocation, STATE 691), (sym_constructor_tearoff, STATE 1135),
     (sym_type_arguments, STATE 3081), (sym_switch_expression, STATE 1135),
     (sym_type_parameters, STATE 2932), (sym__type_name, STATE 2826),
     (sym__formal_parameter_part, STATE 2358), (sym_formal_parameter_list, STATE 2020),
     (sym__strict_formal_parameter_list, STATE 2016), (sym__new_builtin, STATE 2074),
     (sym_this, STATE 1135), (sym_super, STATE 1346), (sym_comment, STATE 321),
     (sym_documentation_comment, STATE 321), (aux_sym_string_literal_repeat1, STATE 595),
     (sym_identifier, ACTIONS 846), (anon_sym_POUND, ACTIONS 698),
     (sym_decimal_integer_literal, ACTIONS 700), (sym_hex_integer_literal, ACTIONS 702),
     (sym_decimal_floating_point_literal, ACTIONS 700), (anon_sym_true, ACTIONS 704),
     (anon_sym_false, ACTIONS 706), (anon_sym_DQUOTE, ACTIONS 708),
     (anon_sym_SQUOTE, ACTIONS 710), (anon_sym_DQUOTE_DQUOTE_DQUOTE, ACTIONS 712),
     (anon_sym_SQUOTE_SQUOTE_SQUOTE, ACTIONS 714), (anon_sym_r_DQUOTE, ACTIONS 716),
     (anon_sym_r_SQUOTE, ACTIONS 718), (anon_sym_r_DQUOTE_DQUOTE_DQUOTE, ACTIONS 720),
     (anon_sym_r_SQUOTE_SQUOTE_SQUOTE, ACTIONS 722), (anon_sym_LBRACE, ACTIONS 756),
     (anon_sym_LBRACK, ACTIONS 758), (anon_sym_null, ACTIONS 728),
     (anon_sym_LPAREN, ACTIONS 760), (anon_sym_LT, ACTIONS 111),
     (sym_increment_operator, ACTIONS 734), (sym_minus_operator, ACTIONS 736),
     (anon_sym_BANG, ACTIONS 119), (anon_sym_TILDE, ACTIONS 121), (anon_sym_await, ACTIONS 738),
     (anon_sym_switch, ACTIONS 740), (anon_sym_new, ACTIONS 155),
     (sym_const_builtin, ACTIONS 744), (anon_sym_this, ACTIONS 746),
     (anon_sym_super, ACTIONS 161), (anon_sym_SLASH_SLASH, ACTIONS 3),
     (anon_sym_SLASH_STAR, ACTIONS 5), (anon_sym_SLASH_SLASH_SLASH, ACTIONS 7),
     (sym__block_comment, ACTIONS 9), (sym__documentation_block_comment, ACTIONS 11)]"

lemma row_ok_321: "table_row_ok 321 ts_parse_table_321"
  by (simp add: row_simps ts_parse_table_321_def)

definition ts_parse_table_322 :: table_row where
  "ts_parse_table_322 = [
     (sym__bool_literal, STATE 989), (sym__numeric_literal, STATE 989),
     (sym__literal, STATE 962), (sym_symbol_literal, STATE 989), (sym_true, STATE 900),
     (sym_false, STATE 900), (sym_string_literal, STATE 989),
     (sym__string_literal_double_quotes, STATE 627),
     (sym__string_literal_single_quotes, STATE 627),
     (sym__string_literal_double_quotes_multiple, STATE 627),
     (sym__string_literal_single_quotes_multiple, STATE 627),
     (sym__raw_string_literal_double_quotes, STATE 627),
     (sym__raw_string_literal_single_quotes, STATE 627),
     (sym__raw_string_literal_double_quotes_multiple, STATE 627),
     (sym__raw_string_literal_single_quotes_multiple, STATE 627), (sym_list_literal, STATE 989),
     (sym_set_or_map_literal, STATE 989), (sym_null_literal, STATE 989),
     (sym_record_literal, STATE 989), (sym__record_literal_no_const, STATE 924),
     (sym__real_expression, STATE 782), (sym_assignable_expression, STATE 3070),
     (sym_function_expression, STATE 962), (sym_if_null_expression, STATE 996),
     (sym_conditional_expression, STATE 996), (sym_logical_or_expression, STATE 996),
     (sym_logical_and_expression, STATE 996), (sym_equality_expression, STATE 996),
     (sym_type_cast_expression, STATE 996), (sym_type_test_expression, STATE 996),
     (sym_relational_expression, STATE 996), (sym_bitwise_or_expression, STATE 996),
     (sym_bitwise_xor_expression, STATE 996), (sym_bitwise_and_expression, STATE 996),
     (sym_shift_expression, STATE 996), (sym_additive_expression, STATE 996),
     (sym_multiplicative_expression, STATE 996), (sym__unary_expression, STATE 1323),
     (sym_unary_expression, STATE 994), (sym__postfix_expression, STATE 994),
     (sym_postfix_expression, STATE 993), (sym_prefix_operator, STATE 421),
     (sym_negation_operator, STATE 1450), (sym__exclamation_operator, STATE 1451),
     (sym_tilde_operator, STATE 1357), (sym_await_expression, STATE 991),
     (sym_new_expression, STATE 962), (sym_const_object_expression, STATE 962),
     (sym__primary, STATE 659), (sym_parenthesized_expression, STATE 962),
     (sym_constructor_invocation, STATE 654), (sym_constructor_tearoff, STATE 962),
     (sym_type_arguments, STATE 3146), (sym_switch_expression, STATE 962),
     (sym_type_parameters, STATE 2932), (sym__type_name, STATE 2859),
     (sym__formal_parameter_part, STATE 2339), (sym_formal_parameter_list, STATE 2020),
     (sym__strict_formal_parameter_list, STATE 2016), (sym__new_builtin, STATE 2079),
     (sym_this, STATE 962), (sym_super, STATE 1343), (sym_comment, STATE 322),
     (sym_documentation_comment, STATE 322), (aux_sym_string_literal_repeat1, STATE 474),
     (sym_identifier, ACTIONS 844), (anon_sym_POUND, ACTIONS 73),
     (sym_decimal_integer_literal, ACTIONS 75), (sym_hex_integer_literal, ACTIONS 77),
     (sym_decimal_floating_point_literal, ACTIONS 75), (anon_sym_true, ACTIONS 79),
     (anon_sym_false, ACTIONS 81), (anon_sym_DQUOTE, ACTIONS 83), (anon_sym_SQUOTE, ACTIONS 85),
     (anon_sym_DQUOTE_DQUOTE_DQUOTE, ACTIONS 87), (anon_sym_SQUOTE_SQUOTE_SQUOTE, ACTIONS 89),
     (anon_sym_r_DQUOTE, ACTIONS 91), (anon_sym_r_SQUOTE, ACTIONS 93),
     (anon_sym_r_DQUOTE_DQUOTE_DQUOTE, ACTIONS 95),
     (anon_sym_r_SQUOTE_SQUOTE_SQUOTE, ACTIONS 97), (anon_sym_LBRACE, ACTIONS 766),
     (anon_sym_LBRACK, ACTIONS 768), (anon_sym_null, ACTIONS 105),
     (anon_sym_LPAREN, ACTIONS 770), (anon_sym_LT, ACTIONS 111),
     (sym_increment_operator, ACTIONS 688), (sym_minus_operator, ACTIONS 690),
     (anon_sym_BANG, ACTIONS 119), (anon_sym_TILDE, ACTIONS 121), (anon_sym_await, ACTIONS 692),
     (anon_sym_switch, ACTIONS 412), (anon_sym_new, ACTIONS 155),
     (sym_const_builtin, ACTIONS 478), (anon_sym_this, ACTIONS 159),
     (anon_sym_super, ACTIONS 161), (anon_sym_SLASH_SLASH, ACTIONS 3),
     (anon_sym_SLASH_STAR, ACTIONS 5), (anon_sym_SLASH_SLASH_SLASH, ACTIONS 7),
     (sym__block_comment, ACTIONS 9), (sym__documentation_block_comment, ACTIONS 11)]"

lemma row_ok_322: "table_row_ok 322 ts_parse_table_322"
  by (simp add: row_simps ts_parse_table_322_def)

definition ts_parse_table_323 :: table_row where
  "ts_parse_table_323 = [
     (sym__bool_literal, STATE 1115), (sym__numeric_literal, STATE 1115),
     (sym__literal, STATE 1135), (sym_symbol_literal, STATE 1115), (sym_true, STATE 1165),
     (sym_false, STATE 1165), (sym_string_literal, STATE 1115),
     (sym__string_literal_double_quotes, STATE 729),
     (sym__string_literal_single_quotes, STATE 729),
     (sym__string_literal_double_quotes_multiple, STATE 729),
     (sym__string_literal_single_quotes_multiple, STATE 729),
     (sym__raw_string_literal_double_quotes, STATE 729),
     (sym__raw_string_literal_single_quotes, STATE 729),
     (sym__raw_string_literal_double_quotes_multiple, STATE 729),
     (sym__raw_string_literal_single_quotes_multiple, STATE 729), (sym_list_literal, STATE 1115),
     (sym_set_or_map_literal, STATE 1115), (sym_null_literal, STATE 1115),
     (sym_record_literal, STATE 1115), (sym__record_literal_no_const, STATE 1187),
     (sym__real_expression, STATE 721), (sym_assignable_expression, STATE 3194),
     (sym_function_expression, STATE 1135), (sym_if_null_expression, STATE 1609),
     (sym_conditional_expression, STATE 1609), (sym_logical_or_expression, STATE 1609),
     (sym_logical_and_expression, STATE 1609), (sym_equality_expression, STATE 1609),
     (sym_type_cast_expression, STATE 1609), (sym_type_test_expression, STATE 1609),
     (sym_relational_expression, STATE 1609), (sym_bitwise_or_expression, STATE 1609),
     (sym_bitwise_xor_expression, STATE 1609), (sym_bitwise_and_expression, STATE 1609),
     (sym_shift_expression, STATE 1609), (sym_additive_expression, STATE 1609),
     (sym_multiplicative_expression, STATE 1609), (sym__unary_expression, STATE 1260),
     (sym_unary_expression, STATE 1391), (sym__postfix_expression, STATE 1391),
     (sym_postfix_expression, STATE 1390), (sym_prefix_operator, STATE 432),
     (sym_negation_operator, STATE 1450), (sym__exclamation_operator, STATE 1451),
     (sym_tilde_operator, STATE 1394), (sym_await_expression, STATE 1389),
     (sym_new_expression, STATE 1135), (sym_const_object_expression, STATE 1135),
     (sym__primary, STATE 684), (sym_parenthesized_expression, STATE 1135),
     (sym_constructor_invocation, STATE 691), (sym_constructor_tearoff, STATE 1135),
     (sym_type_arguments, STATE 3081), (sym_switch_expression, STATE 1135),
     (sym_type_parameters, STATE 2932), (sym__type_name, STATE 2826),
     (sym__formal_parameter_part, STATE 2358), (sym_formal_parameter_list, STATE 2020),
     (sym__strict_formal_parameter_list, STATE 2016), (sym__new_builtin, STATE 2074),
     (sym_this, STATE 1135), (sym_super, STATE 1342), (sym_comment, STATE 323),
     (sym_documentation_comment, STATE 323), (aux_sym_string_literal_repeat1, STATE 595),
     (sym_identifier, ACTIONS 846), (anon_sym_POUND, ACTIONS 698),
     (sym_decimal_integer_literal, ACTIONS 700), (sym_hex_integer_literal, ACTIONS 702),
     (sym_decimal_floating_point_literal, ACTIONS 700), (anon_sym_true, ACTIONS 704),
     (anon_sym_false, ACTIONS 706), (anon_sym_DQUOTE, ACTIONS 708),
     (anon_sym_SQUOTE, ACTIONS 710), (anon_sym_DQUOTE_DQUOTE_DQUOTE, ACTIONS 712),
     (anon_sym_SQUOTE_SQUOTE_SQUOTE, ACTIONS 714), (anon_sym_r_DQUOTE, ACTIONS 716),
     (anon_sym_r_SQUOTE, ACTIONS 718), (anon_sym_r_DQUOTE_DQUOTE_DQUOTE, ACTIONS 720),
     (anon_sym_r_SQUOTE_SQUOTE_SQUOTE, ACTIONS 722), (anon_sym_LBRACE, ACTIONS 756),
     (anon_sym_LBRACK, ACTIONS 758), (anon_sym_null, ACTIONS 728),
     (anon_sym_LPAREN, ACTIONS 760), (anon_sym_LT, ACTIONS 111),
     (sym_increment_operator, ACTIONS 828), (sym_minus_operator, ACTIONS 830),
     (anon_sym_BANG, ACTIONS 119), (anon_sym_TILDE, ACTIONS 121), (anon_sym_await, ACTIONS 832),
     (anon_sym_switch, ACTIONS 740), (anon_sym_new, ACTIONS 155),
     (sym_const_builtin, ACTIONS 744), (anon_sym_this, ACTIONS 746),
     (anon_sym_super, ACTIONS 161), (anon_sym_SLASH_SLASH, ACTIONS 3),
     (anon_sym_SLASH_STAR, ACTIONS 5), (anon_sym_SLASH_SLASH_SLASH, ACTIONS 7),
     (sym__block_comment, ACTIONS 9), (sym__documentation_block_comment, ACTIONS 11)]"

lemma row_ok_323: "table_row_ok 323 ts_parse_table_323"
  by (simp add: row_simps ts_parse_table_323_def)

definition ts_parse_table_324 :: table_row where
  "ts_parse_table_324 = [
     (sym__bool_literal, STATE 989), (sym__numeric_literal, STATE 989),
     (sym__literal, STATE 962), (sym_symbol_literal, STATE 989), (sym_true, STATE 900),
     (sym_false, STATE 900), (sym_string_literal, STATE 989),
     (sym__string_literal_double_quotes, STATE 627),
     (sym__string_literal_single_quotes, STATE 627),
     (sym__string_literal_double_quotes_multiple, STATE 627),
     (sym__string_literal_single_quotes_multiple, STATE 627),
     (sym__raw_string_literal_double_quotes, STATE 627),
     (sym__raw_string_literal_single_quotes, STATE 627),
     (sym__raw_string_literal_double_quotes_multiple, STATE 627),
     (sym__raw_string_literal_single_quotes_multiple, STATE 627), (sym_list_literal, STATE 989),
     (sym_set_or_map_literal, STATE 989), (sym_null_literal, STATE 989),
     (sym_record_literal, STATE 989), (sym__record_literal_no_const, STATE 924),
     (sym__real_expression, STATE 776), (sym_assignable_expression, STATE 3070),
     (sym_function_expression, STATE 962), (sym_if_null_expression, STATE 996),
     (sym_conditional_expression, STATE 996), (sym_logical_or_expression, STATE 996),
     (sym_logical_and_expression, STATE 996), (sym_equality_expression, STATE 996),
     (sym_type_cast_expression, STATE 996), (sym_type_test_expression, STATE 996),
     (sym_relational_expression, STATE 996), (sym_bitwise_or_expression, STATE 996),
     (sym_bitwise_xor_expression, STATE 996), (sym_bitwise_and_expression, STATE 996),
     (sym_shift_expression, STATE 996), (sym_additive_expression, STATE 996),
     (sym_multiplicative_expression, STATE 996), (sym__unary_expression, STATE 1323),
     (sym_unary_expression, STATE 994), (sym__postfix_expression, STATE 994),
     (sym_postfix_expression, STATE 993), (sym_prefix_operator, STATE 421),
     (sym_negation_operator, STATE 1450), (sym__exclamation_operator, STATE 1451),
     (sym_tilde_operator, STATE 1357), (sym_await_expression, STATE 991),
     (sym_new_expression, STATE 962), (sym_const_object_expression, STATE 962),
     (sym__primary, STATE 659), (sym_parenthesized_expression, STATE 962),
     (sym_constructor_invocation, STATE 654), (sym_constructor_tearoff, STATE 962),
     (sym_type_arguments, STATE 3146), (sym_switch_expression, STATE 962),
     (sym_type_parameters, STATE 2932), (sym__type_name, STATE 2859),
     (sym__formal_parameter_part, STATE 2339), (sym_formal_parameter_list, STATE 2020),
     (sym__strict_formal_parameter_list, STATE 2016), (sym__new_builtin, STATE 2079),
     (sym_this, STATE 962), (sym_super, STATE 1343), (sym_comment, STATE 324),
     (sym_documentation_comment, STATE 324), (aux_sym_string_literal_repeat1, STATE 474),
     (sym_identifier, ACTIONS 844), (anon_sym_POUND, ACTIONS 73),
     (sym_decimal_integer_literal, ACTIONS 75), (sym_hex_integer_literal, ACTIONS 77),
     (sym_decimal_floating_point_literal, ACTIONS 75), (anon_sym_true, ACTIONS 79),
     (anon_sym_false, ACTIONS 81), (anon_sym_DQUOTE, ACTIONS 83), (anon_sym_SQUOTE, ACTIONS 85),
     (anon_sym_DQUOTE_DQUOTE_DQUOTE, ACTIONS 87), (anon_sym_SQUOTE_SQUOTE_SQUOTE, ACTIONS 89),
     (anon_sym_r_DQUOTE, ACTIONS 91), (anon_sym_r_SQUOTE, ACTIONS 93),
     (anon_sym_r_DQUOTE_DQUOTE_DQUOTE, ACTIONS 95),
     (anon_sym_r_SQUOTE_SQUOTE_SQUOTE, ACTIONS 97), (anon_sym_LBRACE, ACTIONS 766),
     (anon_sym_LBRACK, ACTIONS 768), (anon_sym_null, ACTIONS 105),
     (anon_sym_LPAREN, ACTIONS 770), (anon_sym_LT, ACTIONS 111),
     (sym_increment_operator, ACTIONS 688), (sym_minus_operator, ACTIONS 690),
     (anon_sym_BANG, ACTIONS 119), (anon_sym_TILDE, ACTIONS 121), (anon_sym_await, ACTIONS 692),
     (anon_sym_switch, ACTIONS 412), (anon_sym_new, ACTIONS 155),
     (sym_const_builtin, ACTIONS 478), (anon_sym_this, ACTIONS 159),
     (anon_sym_super, ACTIONS 161), (anon_sym_SLASH_SLASH, ACTIONS 3),
     (anon_sym_SLASH_STAR, ACTIONS 5), (anon_sym_SLASH_SLASH_SLASH, ACTIONS 7),
     (sym__block_comment, ACTIONS 9), (sym__documentation_block_comment, ACTIONS 11)]"

lemma row_ok_324: "table_row_ok 324 ts_parse_table_324"
  by (simp add: row_simps ts_parse_table_324_def)

definition ts_parse_table_325 :: table_row where
  "ts_parse_table_325 = [
     (sym__bool_literal, STATE 1115), (sym__numeric_literal, STATE 1115),
     (sym__literal, STATE 1135), (sym_symbol_literal, STATE 1115), (sym_true, STATE 1165),
     (sym_false, STATE 1165), (sym_string_literal, STATE 1115),
     (sym__string_literal_double_quotes, STATE 729),
     (sym__string_literal_single_quotes, STATE 729),
     (sym__string_literal_double_quotes_multiple, STATE 729),
     (sym__string_literal_single_quotes_multiple, STATE 729),
     (sym__raw_string_literal_double_quotes, STATE 729),
     (sym__raw_string_literal_single_quotes, STATE 729),
     (sym__raw_string_literal_double_quotes_multiple, STATE 729),
     (sym__raw_string_literal_single_quotes_multiple, STATE 729), (sym_list_literal, STATE 1115),
     (sym_set_or_map_literal, STATE 1115), (sym_null_literal, STATE 1115),
     (sym_record_literal, STATE 1115), (sym__record_literal_no_const, STATE 1187),
     (sym__real_expression, STATE 726), (sym_assignable_expression, STATE 3194),
     (sym_function_expression, STATE 1135), (sym_if_null_expression, STATE 1609),
     (sym_conditional_expression, STATE 1609), (sym_logical_or_expression, STATE 1609),
     (sym_logical_and_expression, STATE 1609), (sym_equality_expression, STATE 1609),
     (sym_type_cast_expression, STATE 1609), (sym_type_test_expression, STATE 1609),
     (sym_relational_expression, STATE 1609), (sym_bitwise_or_expression, STATE 1609),
     (sym_bitwise_xor_expression, STATE 1609), (sym_bitwise_and_expression, STATE 1609),
     (sym_shift_expression, STATE 1609), (sym_additive_expression, STATE 1609),
     (sym_multiplicative_expression, STATE 1609), (sym__unary_expression, STATE 1260),
     (sym_unary_expression, STATE 1391), (sym__postfix_expression, STATE 1391),
     (sym_postfix_expression, STATE 1390), (sym_prefix_operator, STATE 432),
     (sym_negation_operator, STATE 1450), (sym__exclamation_operator, STATE 1451),
     (sym_tilde_operator, STATE 1394), (sym_await_expression, STATE 1389),
     (sym_new_expression, STATE 1135), (sym_const_object_expression, STATE 1135),
     (sym__primary, STATE 684), (sym_parenthesized_expression, STATE 1135),
     (sym_constructor_invocation, STATE 691), (sym_constructor_tearoff, STATE 1135),
     (sym_type_arguments, STATE 3081), (sym_switch_expression, STATE 1135),
     (sym_type_parameters, STATE 2932), (sym__type_name, STATE 2826),
     (sym__formal_parameter_part, STATE 2358), (sym_formal_parameter_list, STATE 2020),
     (sym__strict_formal_parameter_list, STATE 2016), (sym__new_builtin, STATE 2074),
     (sym_this, STATE 1135), (sym_super, STATE 1342), (sym_comment, STATE 325),
     (sym_documentation_comment, STATE 325), (aux_sym_string_literal_repeat1, STATE 595),
     (sym_identifier, ACTIONS 846), (anon_sym_POUND, ACTIONS 698),
     (sym_decimal_integer_literal, ACTIONS 700), (sym_hex_integer_literal, ACTIONS 702),
     (sym_decimal_floating_point_literal, ACTIONS 700), (anon_sym_true, ACTIONS 704),
     (anon_sym_false, ACTIONS 706), (anon_sym_DQUOTE, ACTIONS 708),
     (anon_sym_SQUOTE, ACTIONS 710), (anon_sym_DQUOTE_DQUOTE_DQUOTE, ACTIONS 712),
     (anon_sym_SQUOTE_SQUOTE_SQUOTE, ACTIONS 714), (anon_sym_r_DQUOTE, ACTIONS 716),
     (anon_sym_r_SQUOTE, ACTIONS 718), (anon_sym_r_DQUOTE_DQUOTE_DQUOTE, ACTIONS 720),
     (anon_sym_r_SQUOTE_SQUOTE_SQUOTE, ACTIONS 722), (anon_sym_LBRACE, ACTIONS 756),
     (anon_sym_LBRACK, ACTIONS 758), (anon_sym_null, ACTIONS 728),
     (anon_sym_LPAREN, ACTIONS 760), (anon_sym_LT, ACTIONS 111),
     (sym_increment_operator, ACTIONS 828), (sym_minus_operator, ACTIONS 830),
     (anon_sym_BANG, ACTIONS 119), (anon_sym_TILDE, ACTIONS 121), (anon_sym_await, ACTIONS 832),
     (anon_sym_switch, ACTIONS 740), (anon_sym_new, ACTIONS 155),
     (sym_const_builtin, ACTIONS 744), (anon_sym_this, ACTIONS 746),
     (anon_sym_super, ACTIONS 161), (anon_sym_SLASH_SLASH, ACTIONS 3),
     (anon_sym_SLASH_STAR, ACTIONS 5), (anon_sym_SLASH_SLASH_SLASH, ACTIONS 7),
     (sym__block_comment, ACTIONS 9), (sym__documentation_block_comment, ACTIONS 11)]"

lemma row_ok_325: "table_row_ok 325 ts_parse_table_325"
  by (simp add: row_simps ts_parse_table_325_def)

definition ts_parse_table_326 :: table_row where
  "ts_parse_table_326 = [
     (sym__bool_literal, STATE 1115), (sym__numeric_literal, STATE 1115),
     (sym__literal, STATE 1135), (sym_symbol_literal, STATE 1115), (sym_true, STATE 1165),
     (sym_false, STATE 1165), (sym_string_literal, STATE 1115),
     (sym__string_literal_double_quotes, STATE 729),
     (sym__string_literal_single_quotes, STATE 729),
     (sym__string_literal_double_quotes_multiple, STATE 729),
     (sym__string_literal_single_quotes_multiple, STATE 729),
     (sym__raw_string_literal_double_quotes, STATE 729),
     (sym__raw_string_literal_single_quotes, STATE 729),
     (sym__raw_string_literal_double_quotes_multiple, STATE 729),
     (sym__raw_string_literal_single_quotes_multiple, STATE 729), (sym_list_literal, STATE 1115),
     (sym_set_or_map_literal, STATE 1115), (sym_null_literal, STATE 1115),
     (sym_record_literal, STATE 1115), (sym__record_literal_no_const, STATE 1187),
     (sym__real_expression, STATE 725), (sym_assignable_expression, STATE 3194),
     (sym_function_expression, STATE 1135), (sym_if_null_expression, STATE 1609),
     (sym_conditional_expression, STATE 1609), (sym_logical_or_expression, STATE 1609),
     (sym_logical_and_expression, STATE 1609), (sym_equality_expression, STATE 1609),
     (sym_type_cast_expression, STATE 1609), (sym_type_test_expression, STATE 1609),
     (sym_relational_expression, STATE 1609), (sym_bitwise_or_expression, STATE 1609),
     (sym_bitwise_xor_expression, STATE 1609), (sym_bitwise_and_expression, STATE 1609),
     (sym_shift_expression, STATE 1609), (sym_additive_expression, STATE 1609),
     (sym_multiplicative_expression, STATE 1609), (sym__unary_expression, STATE 1260),
     (sym_unary_expression, STATE 1391), (sym__postfix_expression, STATE 1391),
     (sym_postfix_expression, STATE 1390), (sym_prefix_operator, STATE 432),
     (sym_negation_operator, STATE 1450), (sym__exclamation_operator, STATE 1451),
     (sym_tilde_operator, STATE 1394), (sym_await_expression, STATE 1389),
     (sym_new_expression, STATE 1135), (sym_const_object_expression, STATE 1135),
     (sym__primary, STATE 684), (sym_parenthesized_expression, STATE 1135),
     (sym_constructor_invocation, STATE 691), (sym_constructor_tearoff, STATE 1135),
     (sym_type_arguments, STATE 3081), (sym_switch_expression, STATE 1135),
     (sym_type_parameters, STATE 2932), (sym__type_name, STATE 2826),
     (sym__formal_parameter_part, STATE 2358), (sym_formal_parameter_list, STATE 2020),
     (sym__strict_formal_parameter_list, STATE 2016), (sym__new_builtin, STATE 2074),
     (sym_this, STATE 1135), (sym_super, STATE 1342), (sym_comment, STATE 326),
     (sym_documentation_comment, STATE 326), (aux_sym_string_literal_repeat1, STATE 595),
     (sym_identifier, ACTIONS 846), (anon_sym_POUND, ACTIONS 698),
     (sym_decimal_integer_literal, ACTIONS 700), (sym_hex_integer_literal, ACTIONS 702),
     (sym_decimal_floating_point_literal, ACTIONS 700), (anon_sym_true, ACTIONS 704),
     (anon_sym_false, ACTIONS 706), (anon_sym_DQUOTE, ACTIONS 708),
     (anon_sym_SQUOTE, ACTIONS 710), (anon_sym_DQUOTE_DQUOTE_DQUOTE, ACTIONS 712),
     (anon_sym_SQUOTE_SQUOTE_SQUOTE, ACTIONS 714), (anon_sym_r_DQUOTE, ACTIONS 716),
     (anon_sym_r_SQUOTE, ACTIONS 718), (anon_sym_r_DQUOTE_DQUOTE_DQUOTE, ACTIONS 720),
     (anon_sym_r_SQUOTE_SQUOTE_SQUOTE, ACTIONS 722), (anon_sym_LBRACE, ACTIONS 756),
     (anon_sym_LBRACK, ACTIONS 758), (anon_sym_null, ACTIONS 728),
     (anon_sym_LPAREN, ACTIONS 760), (anon_sym_LT, ACTIONS 111),
     (sym_increment_operator, ACTIONS 828), (sym_minus_operator, ACTIONS 830),
     (anon_sym_BANG, ACTIONS 119), (anon_sym_TILDE, ACTIONS 121), (anon_sym_await, ACTIONS 832),
     (anon_sym_switch, ACTIONS 740), (anon_sym_new, ACTIONS 155),
     (sym_const_builtin, ACTIONS 744), (anon_sym_this, ACTIONS 746),
     (anon_sym_super, ACTIONS 161), (anon_sym_SLASH_SLASH, ACTIONS 3),
     (anon_sym_SLASH_STAR, ACTIONS 5), (anon_sym_SLASH_SLASH_SLASH, ACTIONS 7),
     (sym__block_comment, ACTIONS 9), (sym__documentation_block_comment, ACTIONS 11)]"

lemma row_ok_326: "table_row_ok 326 ts_parse_table_326"
  by (simp add: row_simps ts_parse_table_326_def)

definition ts_parse_table_327 :: table_row where
  "ts_parse_table_327 = [
     (sym__bool_literal, STATE 989), (sym__numeric_literal, STATE 989),
     (sym__literal, STATE 962), (sym_symbol_literal, STATE 989), (sym_true, STATE 900),
     (sym_false, STATE 900), (sym_string_literal, STATE 989),
     (sym__string_literal_double_quotes, STATE 627),
     (sym__string_literal_single_quotes, STATE 627),
     (sym__string_literal_double_quotes_multiple, STATE 627),
     (sym__string_literal_single_quotes_multiple, STATE 627),
     (sym__raw_string_literal_double_quotes, STATE 627),
     (sym__raw_string_literal_single_quotes, STATE 627),
     (sym__raw_string_literal_double_quotes_multiple, STATE 627),
     (sym__raw_string_literal_single_quotes_multiple, STATE 627), (sym_list_literal, STATE 989),
     (sym_set_or_map_literal, STATE 989), (sym_null_literal, STATE 989),
     (sym_record_literal, STATE 989), (sym__record_literal_no_const, STATE 924),
     (sym__real_expression, STATE 694), (sym_assignable_expression, STATE 3122),
     (sym_function_expression, STATE 962), (sym_if_null_expression, STATE 1477),
     (sym_conditional_expression, STATE 1477), (sym_logical_or_expression, STATE 1477),
     (sym_logical_and_expression, STATE 1477), (sym_equality_expression, STATE 1477),
     (sym_type_cast_expression, STATE 1477), (sym_type_test_expression, STATE 1477),
     (sym_relational_expression, STATE 1477), (sym_bitwise_or_expression, STATE 1477),
     (sym_bitwise_xor_expression, STATE 1477), (sym_bitwise_and_expression, STATE 1477),
     (sym_shift_expression, STATE 1477), (sym_additive_expression, STATE 1477),
     (sym_multiplicative_expression, STATE 1477), (sym__unary_expression, STATE 1121),
     (sym_unary_expression, STATE 1303), (sym__postfix_expression, STATE 1303),
     (sym_postfix_expression, STATE 1301), (sym_prefix_operator, STATE 431),
     (sym_negation_operator, STATE 1450), (sym__exclamation_operator, STATE 1451),
     (sym_tilde_operator, STATE 1385), (sym_await_expression, STATE 1302),
     (sym_new_expression, STATE 962), (sym_const_object_expression, STATE 962),
     (sym__primary, STATE 674), (sym_parenthesized_expression, STATE 962),
     (sym_constructor_invocation, STATE 654), (sym_constructor_tearoff, STATE 962),
     (sym_type_arguments, STATE 3146), (sym_switch_expression, STATE 962),
     (sym_type_parameters, STATE 2932), (sym__type_name, STATE 2859),
     (sym__formal_parameter_part, STATE 2339), (sym_formal_parameter_list, STATE 2020),
     (sym__strict_formal_parameter_list, STATE 2016), (sym__new_builtin, STATE 2079),
     (sym_this, STATE 962), (sym_super, STATE 1322), (sym_comment, STATE 327),
     (sym_documentation_comment, STATE 327), (aux_sym_string_literal_repeat1, STATE 474),
     (sym_identifier, ACTIONS 844), (anon_sym_POUND, ACTIONS 73),
     (sym_decimal_integer_literal, ACTIONS 75), (sym_hex_integer_literal, ACTIONS 77),
     (sym_decimal_floating_point_literal, ACTIONS 75), (anon_sym_true, ACTIONS 79),
     (anon_sym_false, ACTIONS 81), (anon_sym_DQUOTE, ACTIONS 83), (anon_sym_SQUOTE, ACTIONS 85),
     (anon_sym_DQUOTE_DQUOTE_DQUOTE, ACTIONS 87), (anon_sym_SQUOTE_SQUOTE_SQUOTE, ACTIONS 89),
     (anon_sym_r_DQUOTE, ACTIONS 91), (anon_sym_r_SQUOTE, ACTIONS 93),
     (anon_sym_r_DQUOTE_DQUOTE_DQUOTE, ACTIONS 95),
     (anon_sym_r_SQUOTE_SQUOTE_SQUOTE, ACTIONS 97), (anon_sym_LBRACE, ACTIONS 766),
     (anon_sym_LBRACK, ACTIONS 768), (anon_sym_null, ACTIONS 105),
     (anon_sym_LPAREN, ACTIONS 770), (anon_sym_LT, ACTIONS 111),
     (sym_increment_operator, ACTIONS 113), (sym_minus_operator, ACTIONS 117),
     (anon_sym_BANG, ACTIONS 119), (anon_sym_TILDE, ACTIONS 121), (anon_sym_await, ACTIONS 432),
     (anon_sym_switch, ACTIONS 412), (anon_sym_new, ACTIONS 155),
     (sym_const_builtin, ACTIONS 478), (anon_sym_this, ACTIONS 159),
     (anon_sym_super, ACTIONS 161), (anon_sym_SLASH_SLASH, ACTIONS 3),
     (anon_sym_SLASH_STAR, ACTIONS 5), (anon_sym_SLASH_SLASH_SLASH, ACTIONS 7),
     (sym__block_comment, ACTIONS 9), (sym__documentation_block_comment, ACTIONS 11)]"

lemma row_ok_327: "table_row_ok 327 ts_parse_table_327"
  by (simp add: row_simps ts_parse_table_327_def)

definition ts_parse_table_328 :: table_row where
  "ts_parse_table_328 = [
     (sym__bool_literal, STATE 989), (sym__numeric_literal, STATE 989),
     (sym__literal, STATE 962), (sym_symbol_literal, STATE 989), (sym_true, STATE 900),
     (sym_false, STATE 900), (sym_string_literal, STATE 989),
     (sym__string_literal_double_quotes, STATE 627),
     (sym__string_literal_single_quotes, STATE 627),
     (sym__string_literal_double_quotes_multiple, STATE 627),
     (sym__string_literal_single_quotes_multiple, STATE 627),
     (sym__raw_string_literal_double_quotes, STATE 627),
     (sym__raw_string_literal_single_quotes, STATE 627),
     (sym__raw_string_literal_double_quotes_multiple, STATE 627),
     (sym__raw_string_literal_single_quotes_multiple, STATE 627), (sym_list_literal, STATE 989),
     (sym_set_or_map_literal, STATE 989), (sym_null_literal, STATE 989),
     (sym_record_literal, STATE 989), (sym__record_literal_no_const, STATE 924),
     (sym__real_expression, STATE 692), (sym_assignable_expression, STATE 3122),
     (sym_function_expression, STATE 962), (sym_if_null_expression, STATE 1477),
     (sym_conditional_expression, STATE 1477), (sym_logical_or_expression, STATE 1477),
     (sym_logical_and_expression, STATE 1477), (sym_equality_expression, STATE 1477),
     (sym_type_cast_expression, STATE 1477), (sym_type_test_expression, STATE 1477),
     (sym_relational_expression, STATE 1477), (sym_bitwise_or_expression, STATE 1477),
     (sym_bitwise_xor_expression, STATE 1477), (sym_bitwise_and_expression, STATE 1477),
     (sym_shift_expression, STATE 1477), (sym_additive_expression, STATE 1477),
     (sym_multiplicative_expression, STATE 1477), (sym__unary_expression, STATE 1121),
     (sym_unary_expression, STATE 1303), (sym__postfix_expression, STATE 1303),
     (sym_postfix_expression, STATE 1301), (sym_prefix_operator, STATE 431),
     (sym_negation_operator, STATE 1450), (sym__exclamation_operator, STATE 1451),
     (sym_tilde_operator, STATE 1385), (sym_await_expression, STATE 1302),
     (sym_new_expression, STATE 962), (sym_const_object_expression, STATE 962),
     (sym__primary, STATE 674), (sym_parenthesized_expression, STATE 962),
     (sym_constructor_invocation, STATE 654), (sym_constructor_tearoff, STATE 962),
     (sym_type_arguments, STATE 3146), (sym_switch_expression, STATE 962),
     (sym_type_parameters, STATE 2932), (sym__type_name, STATE 2859),
     (sym__formal_parameter_part, STATE 2339), (sym_formal_parameter_list, STATE 2020),
     (sym__strict_formal_parameter_list, STATE 2016), (sym__new_builtin, STATE 2079),
     (sym_this, STATE 962), (sym_super, STATE 1322), (sym_comment, STATE 328),
     (sym_documentation_comment, STATE 328), (aux_sym_string_literal_repeat1, STATE 474),
     (sym_identifier, ACTIONS 844), (anon_sym_POUND, ACTIONS 73),
     (sym_decimal_integer_literal, ACTIONS 75), (sym_hex_integer_literal, ACTIONS 77),
     (sym_decimal_floating_point_literal, ACTIONS 75), (anon_sym_true, ACTIONS 79),
     (anon_sym_false, ACTIONS 81), (anon_sym_DQUOTE, ACTIONS 83), (anon_sym_SQUOTE, ACTIONS 85),
     (anon_sym_DQUOTE_DQUOTE_DQUOTE, ACTIONS 87), (anon_sym_SQUOTE_SQUOTE_SQUOTE, ACTIONS 89),
     (anon_sym_r_DQUOTE, ACTIONS 91), (anon_sym_r_SQUOTE, ACTIONS 93),
     (anon_sym_r_DQUOTE_DQUOTE_DQUOTE, ACTIONS 95),
     (anon_sym_r_SQUOTE_SQUOTE_SQUOTE, ACTIONS 97), (anon_sym_LBRACE, ACTIONS 766),
     (anon_sym_LBRACK, ACTIONS 768), (anon_sym_null, ACTIONS 105),
     (anon_sym_LPAREN, ACTIONS 770), (anon_sym_LT, ACTIONS 111),
     (sym_increment_operator, ACTIONS 113), (sym_minus_operator, ACTIONS 117),
     (anon_sym_BANG, ACTIONS 119), (anon_sym_TILDE, ACTIONS 121), (anon_sym_await, ACTIONS 432),
     (anon_sym_switch, ACTIONS 412), (anon_sym_new, ACTIONS 155),
     (sym_const_builtin, ACTIONS 478), (anon_sym_this, ACTIONS 159),
     (anon_sym_super, ACTIONS 161), (anon_sym_SLASH_SLASH, ACTIONS 3),
     (anon_sym_SLASH_STAR, ACTIONS 5), (anon_sym_SLASH_SLASH_SLASH, ACTIONS 7),
     (sym__block_comment, ACTIONS 9), (sym__documentation_block_comment, ACTIONS 11)]"

lemma row_ok_328: "table_row_ok 328 ts_parse_table_328"
  by (simp add: row_simps ts_parse_table_328_def)

definition ts_parse_table_329 :: table_row where
  "ts_parse_table_329 = [
     (sym__bool_literal, STATE 989), (sym__numeric_literal, STATE 989),
     (sym__literal, STATE 962), (sym_symbol_literal, STATE 989), (sym_true, STATE 900),
     (sym_false, STATE 900), (sym_string_literal, STATE 989),
     (sym__string_literal_double_quotes, STATE 627),
     (sym__string_literal_single_quotes, STATE 627),
     (sym__string_literal_double_quotes_multiple, STATE 627),
     (sym__string_literal_single_quotes_multiple, STATE 627),
     (sym__raw_string_literal_double_quotes, STATE 627),
     (sym__raw_string_literal_single_quotes, STATE 627),
     (sym__raw_string_literal_double_quotes_multiple, STATE 627),
     (sym__raw_string_literal_single_quotes_multiple, STATE 627), (sym_list_literal, STATE 989),
     (sym_set_or_map_literal, STATE 989), (sym_null_literal, STATE 989),
     (sym_record_literal, STATE 989), (sym__record_literal_no_const, STATE 924),
     (sym__real_expression, STATE 506), (sym_assignable_expression, STATE 3070),
     (sym_function_expression, STATE 962), (sym_if_null_expression, STATE 996),
     (sym_conditional_expression, STATE 996), (sym_logical_or_expression, STATE 996),
     (sym_logical_and_expression, STATE 996), (sym_equality_expression, STATE 996),
     (sym_type_cast_expression, STATE 996), (sym_type_test_expression, STATE 996),
     (sym_relational_expression, STATE 996), (sym_bitwise_or_expression, STATE 996),
     (sym_bitwise_xor_expression, STATE 996), (sym_bitwise_and_expression, STATE 996),
     (sym_shift_expression, STATE 996), (sym_additive_expression, STATE 996),
     (sym_multiplicative_expression, STATE 996), (sym__unary_expression, STATE 787),
     (sym_unary_expression, STATE 994), (sym__postfix_expression, STATE 994),
     (sym_postfix_expression, STATE 993), (sym_prefix_operator, STATE 421),
     (sym_negation_operator, STATE 1450), (sym__exclamation_operator, STATE 1451),
     (sym_tilde_operator, STATE 1357), (sym_await_expression, STATE 991),
     (sym_new_expression, STATE 962), (sym_const_object_expression, STATE 962),
     (sym__primary, STATE 659), (sym_parenthesized_expression, STATE 962),
     (sym_constructor_invocation, STATE 654), (sym_constructor_tearoff, STATE 962),
     (sym_type_arguments, STATE 3146), (sym_switch_expression, STATE 962),
     (sym_type_parameters, STATE 2932), (sym__type_name, STATE 2859),
     (sym__formal_parameter_part, STATE 2339), (sym_formal_parameter_list, STATE 2020),
     (sym__strict_formal_parameter_list, STATE 2016), (sym__new_builtin, STATE 2079),
     (sym_this, STATE 962), (sym_super, STATE 1340), (sym_comment, STATE 329),
     (sym_documentation_comment, STATE 329), (aux_sym_string_literal_repeat1, STATE 474),
     (sym_identifier, ACTIONS 844), (anon_sym_POUND, ACTIONS 73),
     (sym_decimal_integer_literal, ACTIONS 75), (sym_hex_integer_literal, ACTIONS 77),
     (sym_decimal_floating_point_literal, ACTIONS 75), (anon_sym_true, ACTIONS 79),
     (anon_sym_false, ACTIONS 81), (anon_sym_DQUOTE, ACTIONS 83), (anon_sym_SQUOTE, ACTIONS 85),
     (anon_sym_DQUOTE_DQUOTE_DQUOTE, ACTIONS 87), (anon_sym_SQUOTE_SQUOTE_SQUOTE, ACTIONS 89),
     (anon_sym_r_DQUOTE, ACTIONS 91), (anon_sym_r_SQUOTE, ACTIONS 93),
     (anon_sym_r_DQUOTE_DQUOTE_DQUOTE, ACTIONS 95),
     (anon_sym_r_SQUOTE_SQUOTE_SQUOTE, ACTIONS 97), (anon_sym_LBRACE, ACTIONS 766),
     (anon_sym_LBRACK, ACTIONS 768), (anon_sym_null, ACTIONS 105),
     (anon_sym_LPAREN, ACTIONS 770), (anon_sym_LT, ACTIONS 111),
     (sym_increment_operator, ACTIONS 688), (sym_minus_operator, ACTIONS 690),
     (anon_sym_BANG, ACTIONS 119), (anon_sym_TILDE, ACTIONS 121), (anon_sym_await, ACTIONS 692),
     (anon_sym_switch, ACTIONS 412), (anon_sym_new, ACTIONS 155),
     (sym_const_builtin, ACTIONS 478), (anon_sym_this, ACTIONS 159),
     (anon_sym_super, ACTIONS 161), (anon_sym_SLASH_SLASH, ACTIONS 3),
     (anon_sym_SLASH_STAR, ACTIONS 5), (anon_sym_SLASH_SLASH_SLASH, ACTIONS 7),
     (sym__block_comment, ACTIONS 9), (sym__documentation_block_comment, ACTIONS 11)]"

lemma row_ok_329: "table_row_ok 329 ts_parse_table_329"
  by (simp add: row_simps ts_parse_table_329_def)

definition ts_parse_table_330 :: table_row where
  "ts_parse_table_330 = [
     (sym__bool_literal, STATE 989), (sym__numeric_literal, STATE 989),
     (sym__literal, STATE 962), (sym_symbol_literal, STATE 989), (sym_true, STATE 900),
     (sym_false, STATE 900), (sym_string_literal, STATE 989),
     (sym__string_literal_double_quotes, STATE 627),
     (sym__string_literal_single_quotes, STATE 627),
     (sym__string_literal_double_quotes_multiple, STATE 627),
     (sym__string_literal_single_quotes_multiple, STATE 627),
     (sym__raw_string_literal_double_quotes, STATE 627),
     (sym__raw_string_literal_single_quotes, STATE 627),
     (sym__raw_string_literal_double_quotes_multiple, STATE 627),
     (sym__raw_string_literal_single_quotes_multiple, STATE 627), (sym_list_literal, STATE 989),
     (sym_set_or_map_literal, STATE 989), (sym_null_literal, STATE 989),
     (sym_record_literal, STATE 989), (sym__record_literal_no_const, STATE 924),
     (sym__real_expression, STATE 700), (sym_assignable_expression, STATE 3122),
     (sym_function_expression, STATE 962), (sym_if_null_expression, STATE 1477),
     (sym_conditional_expression, STATE 1477), (sym_logical_or_expression, STATE 1477),
     (sym_logical_and_expression, STATE 1477), (sym_equality_expression, STATE 1477),
     (sym_type_cast_expression, STATE 1477), (sym_type_test_expression, STATE 1477),
     (sym_relational_expression, STATE 1477), (sym_bitwise_or_expression, STATE 1477),
     (sym_bitwise_xor_expression, STATE 1477), (sym_bitwise_and_expression, STATE 1477),
     (sym_shift_expression, STATE 1477), (sym_additive_expression, STATE 1477),
     (sym_multiplicative_expression, STATE 1477), (sym__unary_expression, STATE 1121),
     (sym_unary_expression, STATE 1303), (sym__postfix_expression, STATE 1303),
     (sym_postfix_expression, STATE 1301), (sym_prefix_operator, STATE 431),
     (sym_negation_operator, STATE 1450), (sym__exclamation_operator, STATE 1451),
     (sym_tilde_operator, STATE 1385), (sym_await_expression, STATE 1302),
     (sym_new_expression, STATE 962), (sym_const_object_expression, STATE 962),
     (sym__primary, STATE 674), (sym_parenthesized_expression, STATE 962),
     (sym_constructor_invocation, STATE 654), (sym_constructor_tearoff, STATE 962),
     (sym_type_arguments, STATE 3146), (sym_switch_expression, STATE 962),
     (sym_type_parameters, STATE 2932), (sym__type_name, STATE 2859),
     (sym__formal_parameter_part, STATE 2339), (sym_formal_parameter_list, STATE 2020),
     (sym__strict_formal_parameter_list, STATE 2016), (sym__new_builtin, STATE 2079),
     (sym_this, STATE 962), (sym_super, STATE 1322), (sym_comment, STATE 330),
     (sym_documentation_comment, STATE 330), (aux_sym_string_literal_repeat1, STATE 474),
     (sym_identifier, ACTIONS 844), (anon_sym_POUND, ACTIONS 73),
     (sym_decimal_integer_literal, ACTIONS 75), (sym_hex_integer_literal, ACTIONS 77),
     (sym_decimal_floating_point_literal, ACTIONS 75), (anon_sym_true, ACTIONS 79),
     (anon_sym_false, ACTIONS 81), (anon_sym_DQUOTE, ACTIONS 83), (anon_sym_SQUOTE, ACTIONS 85),
     (anon_sym_DQUOTE_DQUOTE_DQUOTE, ACTIONS 87), (anon_sym_SQUOTE_SQUOTE_SQUOTE, ACTIONS 89),
     (anon_sym_r_DQUOTE, ACTIONS 91), (anon_sym_r_SQUOTE, ACTIONS 93),
     (anon_sym_r_DQUOTE_DQUOTE_DQUOTE, ACTIONS 95),
     (anon_sym_r_SQUOTE_SQUOTE_SQUOTE, ACTIONS 97), (anon_sym_LBRACE, ACTIONS 766),
     (anon_sym_LBRACK, ACTIONS 768), (anon_sym_null, ACTIONS 105),
     (anon_sym_LPAREN, ACTIONS 770), (anon_sym_LT, ACTIONS 111),
     (sym_increment_operator, ACTIONS 113), (sym_minus_operator, ACTIONS 117),
     (anon_sym_BANG, ACTIONS 119), (anon_sym_TILDE, ACTIONS 121), (anon_sym_await, ACTIONS 432),
     (anon_sym_switch, ACTIONS 412), (anon_sym_new, ACTIONS 155),
     (sym_const_builtin, ACTIONS 478), (anon_sym_this, ACTIONS 159),
     (anon_sym_super, ACTIONS 161), (anon_sym_SLASH_SLASH, ACTIONS 3),
     (anon_sym_SLASH_STAR, ACTIONS 5), (anon_sym_SLASH_SLASH_SLASH, ACTIONS 7),
     (sym__block_comment, ACTIONS 9), (sym__documentation_block_comment, ACTIONS 11)]"

lemma row_ok_330: "table_row_ok 330 ts_parse_table_330"
  by (simp add: row_simps ts_parse_table_330_def)

definition ts_parse_table_rows_6 :: "(TSStateId \<times> table_row) list" where
  "ts_parse_table_rows_6 = [
     (265, ts_parse_table_265), (266, ts_parse_table_266), (267, ts_parse_table_267),
     (268, ts_parse_table_268), (269, ts_parse_table_269), (270, ts_parse_table_270),
     (271, ts_parse_table_271), (272, ts_parse_table_272), (273, ts_parse_table_273),
     (274, ts_parse_table_274), (275, ts_parse_table_275), (276, ts_parse_table_276),
     (277, ts_parse_table_277), (278, ts_parse_table_278), (279, ts_parse_table_279),
     (280, ts_parse_table_280), (281, ts_parse_table_281), (282, ts_parse_table_282),
     (283, ts_parse_table_283), (284, ts_parse_table_284), (285, ts_parse_table_285),
     (286, ts_parse_table_286), (287, ts_parse_table_287), (288, ts_parse_table_288),
     (289, ts_parse_table_289), (290, ts_parse_table_290), (291, ts_parse_table_291),
     (292, ts_parse_table_292), (293, ts_parse_table_293), (294, ts_parse_table_294),
     (295, ts_parse_table_295), (296, ts_parse_table_296), (297, ts_parse_table_297),
     (298, ts_parse_table_298), (299, ts_parse_table_299), (300, ts_parse_table_300),
     (301, ts_parse_table_301), (302, ts_parse_table_302), (303, ts_parse_table_303),
     (304, ts_parse_table_304), (305, ts_parse_table_305), (306, ts_parse_table_306),
     (307, ts_parse_table_307), (308, ts_parse_table_308), (309, ts_parse_table_309),
     (310, ts_parse_table_310), (311, ts_parse_table_311), (312, ts_parse_table_312),
     (313, ts_parse_table_313), (314, ts_parse_table_314), (315, ts_parse_table_315),
     (316, ts_parse_table_316), (317, ts_parse_table_317), (318, ts_parse_table_318),
     (319, ts_parse_table_319), (320, ts_parse_table_320), (321, ts_parse_table_321),
     (322, ts_parse_table_322), (323, ts_parse_table_323), (324, ts_parse_table_324),
     (325, ts_parse_table_325), (326, ts_parse_table_326), (327, ts_parse_table_327),
     (328, ts_parse_table_328), (329, ts_parse_table_329), (330, ts_parse_table_330)]"

lemma rows_ok_6: "list_all (\<lambda>(s, es). table_row_ok s es) ts_parse_table_rows_6"
  by (simp add: ts_parse_table_rows_6_def
    row_ok_265 row_ok_266 row_ok_267 row_ok_268 row_ok_269 row_ok_270 row_ok_271 row_ok_272 row_ok_273
    row_ok_274 row_ok_275 row_ok_276 row_ok_277 row_ok_278 row_ok_279 row_ok_280 row_ok_281 row_ok_282
    row_ok_283 row_ok_284 row_ok_285 row_ok_286 row_ok_287 row_ok_288 row_ok_289 row_ok_290 row_ok_291
    row_ok_292 row_ok_293 row_ok_294 row_ok_295 row_ok_296 row_ok_297 row_ok_298 row_ok_299 row_ok_300
    row_ok_301 row_ok_302 row_ok_303 row_ok_304 row_ok_305 row_ok_306 row_ok_307 row_ok_308 row_ok_309
    row_ok_310 row_ok_311 row_ok_312 row_ok_313 row_ok_314 row_ok_315 row_ok_316 row_ok_317 row_ok_318
    row_ok_319 row_ok_320 row_ok_321 row_ok_322 row_ok_323 row_ok_324 row_ok_325 row_ok_326 row_ok_327
    row_ok_328 row_ok_329 row_ok_330)

lemma row_keys_6: "map fst ts_parse_table_rows_6 = [265..<331]"
  by (simp add: ts_parse_table_rows_6_def upt_from_0)

end
