(* ===== verification/Dart_Rows_7.thy ===== *)
theory Dart_Rows_7
  imports Dart_Items
begin

text \<open>
  The rows 331 to 403 of \<^verbatim>\<open>ts_parse_table\<close>, each with the check of its entries.
\<close>

definition ts_parse_table_331 :: table_row where
  "ts_parse_table_331 = [
     (sym__bool_literal, STATE 989), (sym__numeric_literal, STATE 989),
     (sym__literal, STATE 962), (sym_symbol_literal, STATE 989), (sym_true, STATE 900),
     (sym_false, STATE 900), (sym_string_literal, STATE 989),
     (sym__string_literal_double_quotes, STATE 627),
     (sym__string_literal_single_quotes, STATE 627),
     (sym__string_literal_double_quotes_multiple, STATE 627),
     (sym__string_literal_single_quotes_multiple, STATE 627),
     (sym__raw_string_literal_double_quotes, STATE 627),
     (sym__raw_string_literal_single_quotes, STATE 627),
     (sym__raw_string_literal_double_quotes_multiple, STATE 627),
     (sym__raw_string_literal_single_quotes_multiple, STATE 627), (sym_list_literal, STATE 989),
     (sym_set_or_map_literal, STATE 989), (sym_null_literal, STATE 989),
     (sym_record_literal, STATE 989), (sym__record_literal_no_const, STATE 924),
     (sym__real_expression, STATE 756), (sym_assignable_expression, STATE 3070),
     (sym_function_expression, STATE 962), (sym_if_null_expression, STATE 996),
     (sym_conditional_expression, STATE 996), (sym_logical_or_expression, STATE 996),
     (sym_logical_and_expression, STATE 996), (sym_equality_expression, STATE 996),
     (sym_type_cast_expression, STATE 996), (sym_type_test_expression, STATE 996),
     (sym_relational_expression, STATE 996), (sym_bitwise_or_expression, STATE 996),
     (sym_bitwise_xor_expression, STATE 996), (sym_bitwise_and_expression, STATE 996),
     (sym_shift_expression, STATE 996), (sym_additive_expression, STATE 996),
     (sym_multiplicative_expression, STATE 996), (sym__unary_expression, STATE 1323),
     (sym_unary_expression, STATE 994), (sym__postfix_expression, STATE 994),
     (sym_postfix_expression, STATE 993), (sym_prefix_operator, STATE 421),
     (sym_negation_operator, STATE 1450), (sym__exclamation_operator, STATE 1451),
     (sym_tilde_operator, STATE 1357), (sym_await_expression, STATE 991),
     (sym_new_expression, STATE 962), (sym_const_object_expression, STATE 962),
     (sym__primary, STATE 659), (sym_parenthesized_expression, STATE 962),
     (sym_constructor_invocation, STATE 654), (sym_constructor_tearoff, STATE 962),
     (sym_type_arguments, STATE 3146), (sym_switch_expression, STATE 962),
     (sym_type_parameters, STATE 2932), (sym__type_name, STATE 2859),
     (sym__formal_parameter_part, STATE 2339), (sym_formal_parameter_list, STATE 2020),
     (sym__strict_formal_parameter_list, STATE 2016), (sym__new_builtin, STATE 2079),
     (sym_this, STATE 962), (sym_super, STATE 1343), (sym_comment, STATE 331),
     (sym_documentation_comment, STATE 331), (aux_sym_string_literal_repeat1, STATE 474),
     (sym_identifier, ACTIONS 844), (anon_sym_POUND, ACTIONS 73),
     (sym_decimal_integer_literal, ACTIONS 75), (sym_hex_integer_literal, ACTIONS 77),
     (sym_decimal_floating_point_literal, ACTIONS 75), (anon_sym_true, ACTIONS 79),
     (anon_sym_false, ACTIONS 81), (anon_sym_DQUOTE, ACTIONS 83), (anon_sym_SQUOTE, ACTIONS 85),
     (anon_sym_DQUOTE_DQUOTE_DQUOTE, ACTIONS 87), (anon_sym_SQUOTE_SQUOTE_SQUOTE, ACTIONS 89),
     (anon_sym_r_DQUOTE, ACTIONS 91), (anon_sym_r_SQUOTE, ACTIONS 93),
     (anon_sym_r_DQUOTE_DQUOTE_DQUOTE, ACTIONS 95),
     (anon_sym_r_SQUOTE_SQUOTE_SQUOTE, ACTIONS 97), (anon_sym_LBRACE, ACTIONS 766),
     (anon_sym_LBRACK, ACTIONS 768), (anon_sym_null, ACTIONS 105),
     (anon_sym_LPAREN, ACTIONS 770), (anon_sym_LT, ACTIONS 111),
     (sym_increment_operator, ACTIONS 688), (sym_minus_operator, ACTIONS 690),
     (anon_sym_BANG, ACTIONS 119), (anon_sym_TILDE, ACTIONS 121), (anon_sym_await, ACTIONS 692),
     (anon_sym_switch, ACTIONS 412), (anon_sym_new, ACTIONS 155),
     (sym_const_builtin, ACTIONS 478), (anon_sym_this, ACTIONS 159),
     (anon_sym_super, ACTIONS 161), (anon_sym_SLASH_SLASH, ACTIONS 3),
     (anon_sym_SLASH_STAR, ACTIONS 5), (anon_sym_SLASH_SLASH_SLASH, ACTIONS 7),
     (sym__block_comment, ACTIONS 9), (sym__documentation_block_comment, ACTIONS 11)]"

lemma row_ok_331: "table_row_ok 331 ts_parse_table_331"
  by (simp add: row_simps ts_parse_table_331_def)

definition ts_parse_table_332 :: table_row where
  "ts_parse_table_332 = [
     (sym__bool_literal, STATE 989), (sym__numeric_literal, STATE 989),
     (sym__literal, STATE 962), (sym_symbol_literal, STATE 989), (sym_true, STATE 900),
     (sym_false, STATE 900), (sym_string_literal, STATE 989),
     (sym__string_literal_double_quotes, STATE 627),
     (sym__string_literal_single_quotes, STATE 627),
     (sym__string_literal_double_quotes_multiple, STATE 627),
     (sym__string_literal_single_quotes_multiple, STATE 627),
     (sym__raw_string_literal_double_quotes, STATE 627),
     (sym__raw_string_literal_single_quotes, STATE 627),
     (sym__raw_string_literal_double_quotes_multiple, STATE 627),
     (sym__raw_string_literal_single_quotes_multiple, STATE 627), (sym_list_literal, STATE 989),
     (sym_set_or_map_literal, STATE 989), (sym_null_literal, STATE 989),
     (sym_record_literal, STATE 989), (sym__record_literal_no_const, STATE 924),
     (sym__real_expression, STATE 695), (sym_assignable_expression, STATE 3122),
     (sym_function_expression, STATE 962), (sym_if_null_expression, STATE 1477),
     (sym_conditional_expression, STATE 1477), (sym_logical_or_expression, STATE 1477),
     (sym_logical_and_expression, STATE 1477), (sym_equality_expression, STATE 1477),
     (sym_type_cast_expression, STATE 1477), (sym_type_test_expression, STATE 1477),
     (sym_relational_expression, STATE 1477), (sym_bitwise_or_expression, STATE 1477),
     (sym_bitwise_xor_expression, STATE 1477), (sym_bitwise_and_expression, STATE 1477),
     (sym_shift_expression, STATE 1477), (sym_additive_expression, STATE 1477),
     (sym_multiplicative_expression, STATE 1477), (sym__unary_expression, STATE 1121),
     (sym_unary_expression, STATE 1303), (sym__postfix_expression, STATE 1303),
     (sym_postfix_expression, STATE 1301), (sym_prefix_operator, STATE 431),
     (sym_negation_operator, STATE 1450), (sym__exclamation_operator, STATE 1451),
     (sym_tilde_operator, STATE 1385), (sym_await_expression, STATE 1302),
     (sym_new_expression, STATE 962), (sym_const_object_expression, STATE 962),
     (sym__primary, STATE 674), (sym_parenthesized_expression, STATE 962),
     (sym_constructor_invocation, STATE 654), (sym_constructor_tearoff, STATE 962),
     (sym_type_arguments, STATE 3146), (sym_switch_expression, STATE 962),
     (sym_type_parameters, STATE 2932), (sym__type_name, STATE 2859),
     (sym__formal_parameter_part, STATE 2339), (sym_formal_parameter_list, STATE 2020),
     (sym__strict_formal_parameter_list, STATE 2016), (sym__new_builtin, STATE 2079),
     (sym_this, STATE 962), (sym_super, STATE 1322), (sym_comment, STATE 332),
     (sym_documentation_comment, STATE 332), (aux_sym_string_literal_repeat1, STATE 474),
     (sym_identifier, ACTIONS 844), (anon_sym_POUND, ACTIONS 73),
     (sym_decimal_integer_literal, ACTIONS 75), (sym_hex_integer_literal, ACTIONS 77),
     (sym_decimal_floating_point_literal, ACTIONS 75), (anon_sym_true, ACTIONS 79),
     (anon_sym_false, ACTIONS 81), (anon_sym_DQUOTE, ACTIONS 83), (anon_sym_SQUOTE, ACTIONS 85),
     (anon_sym_DQUOTE_DQUOTE_DQUOTE, ACTIONS 87), (anon_sym_SQUOTE_SQUOTE_SQUOTE, ACTIONS 89),
     (anon_sym_r_DQUOTE, ACTIONS 91), (anon_sym_r_SQUOTE, ACTIONS 93),
     (anon_sym_r_DQUOTE_DQUOTE_DQUOTE, ACTIONS 95),
     (anon_sym_r_SQUOTE_SQUOTE_SQUOTE, ACTIONS 97), (anon_sym_LBRACE, ACTIONS 766),
     (anon_sym_LBRACK, ACTIONS 768), (anon_sym_null, ACTIONS 105),
     (anon_sym_LPAREN, ACTIONS 770), (anon_sym_LT, ACTIONS 111),
     (sym_increment_operator, ACTIONS 113), (sym_minus_operator, ACTIONS 117),
     (anon_sym_BANG, ACTIONS 119), (anon_sym_TILDE, ACTIONS 121), (anon_sym_await, ACTIONS 432),
     (anon_sym_switch, ACTIONS 412), (anon_sym_new, ACTIONS 155),
     (sym_const_builtin, ACTIONS 478), (anon_sym_this, ACTIONS 159),
     (anon_sym_super, ACTIONS 161), (anon_sym_SLASH_SLASH, ACTIONS 3),
     (anon_sym_SLASH_STAR, ACTIONS 5), (anon_sym_SLASH_SLASH_SLASH, ACTIONS 7),
     (sym__block_comment, ACTIONS 9), (sym__documentation_block_comment, ACTIONS 11)]"

lemma row_ok_332: "table_row_ok 332 ts_parse_table_332"
  by (simp add: row_simps ts_parse_table_332_def)

definition ts_parse_table_333 :: table_row where
  "ts_parse_table_333 = [
     (sym__bool_literal, STATE 1115), (sym__numeric_literal, STATE 1115),
     (sym__literal, STATE 1135), (sym_symbol_literal, STATE 1115), (sym_true, STATE 1165),
     (sym_false, STATE 1165), (sym_string_literal, STATE 1115),
     (sym__string_literal_double_quotes, STATE 729),
     (sym__string_literal_single_quotes, STATE 729),
     (sym__string_literal_double_quotes_multiple, STATE 729),
     (sym__string_literal_single_quotes_multiple, STATE 729),
     (sym__raw_string_literal_double_quotes, STATE 729),
     (sym__raw_string_literal_single_quotes, STATE 729),
     (sym__raw_string_literal_double_quotes_multiple, STATE 729),
     (sym__raw_string_literal_single_quotes_multiple, STATE 729), (sym_list_literal, STATE 1115),
     (sym_set_or_map_literal, STATE 1115), (sym_null_literal, STATE 1115),
     (sym_record_literal, STATE 1115), (sym__record_literal_no_const, STATE 1187),
     (sym__real_expression, STATE 564), (sym_assignable_expression, STATE 3249),
     (sym_function_expression, STATE 1135), (sym_if_null_expression, STATE 1117),
     (sym_conditional_expression, STATE 1117), (sym_logical_or_expression, STATE 1117),
     (sym_logical_and_expression, STATE 1117), (sym_equality_expression, STATE 1117),
     (sym_type_cast_expression, STATE 1117), (sym_type_test_expression, STATE 1117),
     (sym_relational_expression, STATE 1117), (sym_bitwise_or_expression, STATE 1117),
     (sym_bitwise_xor_expression, STATE 1117), (sym_bitwise_and_expression, STATE 1117),
     (sym_shift_expression, STATE 1117), (sym_additive_expression, STATE 1117),
     (sym_multiplicative_expression, STATE 1117), (sym__unary_expression, STATE 902),
     (sym_unary_expression, STATE 1114), (sym__postfix_expression, STATE 1114),
     (sym_postfix_expression, STATE 1098), (sym_prefix_operator, STATE 417),
     (sym_negation_operator, STATE 1450), (sym__exclamation_operator, STATE 1451),
     (sym_tilde_operator, STATE 1359), (sym_await_expression, STATE 1093),
     (sym_new_expression, STATE 1135), (sym_const_object_expression, STATE 1135),
     (sym__primary, STATE 701), (sym_parenthesized_expression, STATE 1135),
     (sym_constructor_invocation, STATE 691), (sym_constructor_tearoff, STATE 1135),
     (sym_type_arguments, STATE 3081), (sym_switch_expression, STATE 1135),
     (sym_type_parameters, STATE 2932), (sym__type_name, STATE 2826),
     (sym__formal_parameter_part, STATE 2358), (sym_formal_parameter_list, STATE 2020),
     (sym__strict_formal_parameter_list, STATE 2016), (sym__new_builtin, STATE 2074),
     (sym_this, STATE 1135), (sym_super, STATE 1346), (sym_comment, STATE 333),
     (sym_documentation_comment, STATE 333), (aux_sym_string_literal_repeat1, STATE 595),
     (sym_identifier, ACTIONS 846), (anon_sym_POUND, ACTIONS 698),
     (sym_decimal_integer_literal, ACTIONS 700), (sym_hex_integer_literal, ACTIONS 702),
     (sym_decimal_floating_point_literal, ACTIONS 700), (anon_sym_true, ACTIONS 704),
     (anon_sym_false, ACTIONS 706), (anon_sym_DQUOTE, ACTIONS 708),
     (anon_sym_SQUOTE, ACTIONS 710), (anon_sym_DQUOTE_DQUOTE_DQUOTE, ACTIONS 712),
     (anon_sym_SQUOTE_SQUOTE_SQUOTE, ACTIONS 714), (anon_sym_r_DQUOTE, ACTIONS 716),
     (anon_sym_r_SQUOTE, ACTIONS 718), (anon_sym_r_DQUOTE_DQUOTE_DQUOTE, ACTIONS 720),
     (anon_sym_r_SQUOTE_SQUOTE_SQUOTE, ACTIONS 722), (anon_sym_LBRACE, ACTIONS 756),
     (anon_sym_LBRACK, ACTIONS 758), (anon_sym_null, ACTIONS 728),
     (anon_sym_LPAREN, ACTIONS 760), (anon_sym_LT, ACTIONS 111),
     (sym_increment_operator, ACTIONS 734), (sym_minus_operator, ACTIONS 736),
     (anon_sym_BANG, ACTIONS 119), (anon_sym_TILDE, ACTIONS 121), (anon_sym_await, ACTIONS 738),
     (anon_sym_switch, ACTIONS 740), (anon_sym_new, ACTIONS 155),
     (sym_const_builtin, ACTIONS 744), (anon_sym_this, ACTIONS 746),
     (anon_sym_super, ACTIONS 161), (anon_sym_SLASH_SLASH, ACTIONS 3),
     (anon_sym_SLASH_STAR, ACTIONS 5), (anon_sym_SLASH_SLASH_SLASH, ACTIONS 7),
     (sym__block_comment, ACTIONS 9), (sym__documentation_block_comment, ACTIONS 11)]"

lemma row_ok_333: "table_row_ok 333 ts_parse_table_333"
  by (simp add: row_simps ts_parse_table_333_def)

definition ts_parse_table_334 :: table_row where
  "ts_parse_table_334 = [
     (sym__bool_literal, STATE 1115), (sym__numeric_literal, STATE 1115),
     (sym__literal, STATE 1135), (sym_symbol_literal, STATE 1115), (sym_true, STATE 1165),
     (sym_false, STATE 1165), (sym_string_literal, STATE 1115),
     (sym__string_literal_double_quotes, STATE 729),
     (sym__string_literal_single_quotes, STATE 729),
     (sym__string_literal_double_quotes_multiple, STATE 729),
     (sym__string_literal_single_quotes_multiple, STATE 729),
     (sym__raw_string_literal_double_quotes, STATE 729),
     (sym__raw_string_literal_single_quotes, STATE 729),
     (sym__raw_string_literal_double_quotes_multiple, STATE 729),
     (sym__raw_string_literal_single_quotes_multiple, STATE 729), (sym_list_literal, STATE 1115),
     (sym_set_or_map_literal, STATE 1115), (sym_null_literal, STATE 1115),
     (sym_record_literal, STATE 1115), (sym__record_literal_no_const, STATE 1187),
     (sym__real_expression, STATE 559), (sym_assignable_expression, STATE 3249),
     (sym_function_expression, STATE 1135), (sym_if_null_expression, STATE 1117),
     (sym_conditional_expression, STATE 1117), (sym_logical_or_expression, STATE 1117),
     (sym_logical_and_expression, STATE 1117), (sym_equality_expression, STATE 1117),
     (sym_type_cast_expression, STATE 1117), (sym_type_test_expression, STATE 1117),
     (sym_relational_expression, STATE 1117), (sym_bitwise_or_expression, STATE 1117),
     (sym_bitwise_xor_expression, STATE 1117), (sym_bitwise_and_expression, STATE 1117),
     (sym_shift_expression, STATE 1117), (sym_additive_expression, STATE 1117),
     (sym_multiplicative_expression, STATE 1117), (sym__unary_expression, STATE 902),
     (sym_unary_expression, STATE 1114), (sym__postfix_expression, STATE 1114),
     (sym_postfix_expression, STATE 1098), (sym_prefix_operator, STATE 417),
     (sym_negation_operator, STATE 1450), (sym__exclamation_operator, STATE 1451),
     (sym_tilde_operator, STATE 1359), (sym_await_expression, STATE 1093),
     (sym_new_expression, STATE 1135), (sym_const_object_expression, STATE 1135),
     (sym__primary, STATE 701), (sym_parenthesized_expression, STATE 1135),
     (sym_constructor_invocation, STATE 691), (sym_constructor_tearoff, STATE 1135),
     (sym_type_arguments, STATE 3081), (sym_switch_expression, STATE 1135),
     (sym_type_parameters, STATE 2932), (sym__type_name, STATE 2826),
     (sym__formal_parameter_part, STATE 2358), (sym_formal_parameter_list, STATE 2020),
     (sym__strict_formal_parameter_list, STATE 2016), (sym__new_builtin, STATE 2074),
     (sym_this, STATE 1135), (sym_super, STATE 1346), (sym_comment, STATE 334),
     (sym_documentation_comment, STATE 334), (aux_sym_string_literal_repeat1, STATE 595),
     (sym_identifier, ACTIONS 846), (anon_sym_POUND, ACTIONS 698),
     (sym_decimal_integer_literal, ACTIONS 700), (sym_hex_integer_literal, ACTIONS 702),
     (sym_decimal_floating_point_literal, ACTIONS 700), (anon_sym_true, ACTIONS 704),
     (anon_sym_false, ACTIONS 706), (anon_sym_DQUOTE, ACTIONS 708),
     (anon_sym_SQUOTE, ACTIONS 710), (anon_sym_DQUOTE_DQUOTE_DQUOTE, ACTIONS 712),
     (anon_sym_SQUOTE_SQUOTE_SQUOTE, ACTIONS 714), (anon_sym_r_DQUOTE, ACTIONS 716),
     (anon_sym_r_SQUOTE, ACTIONS 718), (anon_sym_r_DQUOTE_DQUOTE_DQUOTE, ACTIONS 720),
     (anon_sym_r_SQUOTE_SQUOTE_SQUOTE, ACTIONS 722), (anon_sym_LBRACE, ACTIONS 756),
     (anon_sym_LBRACK, ACTIONS 758), (anon_sym_null, ACTIONS 728),
     (anon_sym_LPAREN, ACTIONS 760), (anon_sym_LT, ACTIONS 111),
     (sym_increment_operator, ACTIONS 734), (sym_minus_operator, ACTIONS 736),
     (anon_sym_BANG, ACTIONS 119), (anon_sym_TILDE, ACTIONS 121), (anon_sym_await, ACTIONS 738),
     (anon_sym_switch, ACTIONS 740), (anon_sym_new, ACTIONS 155),
     (sym_const_builtin, ACTIONS 744), (anon_sym_this, ACTIONS 746),
     (anon_sym_super, ACTIONS 161), (anon_sym_SLASH_SLASH, ACTIONS 3),
     (anon_sym_SLASH_STAR, ACTIONS 5), (anon_sym_SLASH_SLASH_SLASH, ACTIONS 7),
     (sym__block_comment, ACTIONS 9), (sym__documentation_block_comment, ACTIONS 11)]"

lemma row_ok_334: "table_row_ok 334 ts_parse_table_334"
  by (simp add: row_simps ts_parse_table_334_def)

definition ts_parse_table_335 :: table_row where
  "ts_parse_table_335 = [
     (sym__bool_literal, STATE 989), (sym__numeric_literal, STATE 989),
     (sym__literal, STATE 962), (sym_symbol_literal, STATE 989), (sym_true, STATE 900),
     (sym_false, STATE 900), (sym_string_literal, STATE 989),
     (sym__string_literal_double_quotes, STATE 627),
     (sym__string_literal_single_quotes, STATE 627),
     (sym__string_literal_double_quotes_multiple, STATE 627),
     (sym__string_literal_single_quotes_multiple, STATE 627),
     (sym__raw_string_literal_double_quotes, STATE 627),
     (sym__raw_string_literal_single_quotes, STATE 627),
     (sym__raw_string_literal_double_quotes_multiple, STATE 627),
     (sym__raw_string_literal_single_quotes_multiple, STATE 627), (sym_list_literal, STATE 989),
     (sym_set_or_map_literal, STATE 989), (sym_null_literal, STATE 989),
     (sym_record_literal, STATE 989), (sym__record_literal_no_const, STATE 924),
     (sym__real_expression, STATE 778), (sym_assignable_expression, STATE 3070),
     (sym_function_expression, STATE 962), (sym_if_null_expression, STATE 996),
     (sym_conditional_expression, STATE 996), (sym_logical_or_expression, STATE 996),
     (sym_logical_and_expression, STATE 996), (sym_equality_expression, STATE 996),
     (sym_type_cast_expression, STATE 996), (sym_type_test_expression, STATE 996),
     (sym_relational_expression, STATE 996), (sym_bitwise_or_expression, STATE 996),
     (sym_bitwise_xor_expression, STATE 996), (sym_bitwise_and_expression, STATE 996),
     (sym_shift_expression, STATE 996), (sym_additive_expression, STATE 996),
     (sym_multiplicative_expression, STATE 996), (sym__unary_expression, STATE 1323),
     (sym_unary_expression, STATE 994), (sym__postfix_expression, STATE 994),
     (sym_postfix_expression, STATE 993), (sym_prefix_operator, STATE 421),
     (sym_negation_operator, STATE 1450), (sym__exclamation_operator, STATE 1451),
     (sym_tilde_operator, STATE 1357), (sym_await_expression, STATE 991),
     (sym_new_expression, STATE 962), (sym_const_object_expression, STATE 962),
     (sym__primary, STATE 659), (sym_parenthesized_expression, STATE 962),
     (sym_constructor_invocation, STATE 654), (sym_constructor_tearoff, STATE 962),
     (sym_type_arguments, STATE 3146), (sym_switch_expression, STATE 962),
     (sym_type_parameters, STATE 2932), (sym__type_name, STATE 2859),
     (sym__formal_parameter_part, STATE 2339), (sym_formal_parameter_list, STATE 2020),
     (sym__strict_formal_parameter_list, STATE 2016), (sym__new_builtin, STATE 2079),
     (sym_this, STATE 962), (sym_super, STATE 1343), (sym_comment, STATE 335),
     (sym_documentation_comment, STATE 335), (aux_sym_string_literal_repeat1, STATE 474),
     (sym_identifier, ACTIONS 844), (anon_sym_POUND, ACTIONS 73),
     (sym_decimal_integer_literal, ACTIONS 75), (sym_hex_integer_literal, ACTIONS 77),
     (sym_decimal_floating_point_literal, ACTIONS 75), (anon_sym_true, ACTIONS 79),
     (anon_sym_false, ACTIONS 81), (anon_sym_DQUOTE, ACTIONS 83), (anon_sym_SQUOTE, ACTIONS 85),
     (anon_sym_DQUOTE_DQUOTE_DQUOTE, ACTIONS 87), (anon_sym_SQUOTE_SQUOTE_SQUOTE, ACTIONS 89),
     (anon_sym_r_DQUOTE, ACTIONS 91), (anon_sym_r_SQUOTE, ACTIONS 93),
     (anon_sym_r_DQUOTE_DQUOTE_DQUOTE, ACTIONS 95),
     (anon_sym_r_SQUOTE_SQUOTE_SQUOTE, ACTIONS 97), (anon_sym_LBRACE, ACTIONS 766),
     (anon_sym_LBRACK, ACTIONS 768), (anon_sym_null, ACTIONS 105),
     (anon_sym_LPAREN, ACTIONS 770), (anon_sym_LT, ACTIONS 111),
     (sym_increment_operator, ACTIONS 688), (sym_minus_operator, ACTIONS 690),
     (anon_sym_BANG, ACTIONS 119), (anon_sym_TILDE, ACTIONS 121), (anon_sym_await, ACTIONS 692),
     (anon_sym_switch, ACTIONS 412), (anon_sym_new, ACTIONS 155),
     (sym_const_builtin, ACTIONS 478), (anon_sym_this, ACTIONS 159),
     (anon_sym_super, ACTIONS 161), (anon_sym_SLASH_SLASH, ACTIONS 3),
     (anon_sym_SLASH_STAR, ACTIONS 5), (anon_sym_SLASH_SLASH_SLASH, ACTIONS 7),
     (sym__block_comment, ACTIONS 9), (sym__documentation_block_comment, ACTIONS 11)]"

lemma row_ok_335: "table_row_ok 335 ts_parse_table_335"
  by (simp add: row_simps ts_parse_table_335_def)

definition ts_parse_table_336 :: table_row where
  "ts_parse_table_336 = [
     (sym__bool_literal, STATE 1115), (sym__numeric_literal, STATE 1115),
     (sym__literal, STATE 1135), (sym_symbol_literal, STATE 1115), (sym_true, STATE 1165),
     (sym_false, STATE 1165), (sym_string_literal, STATE 1115),
     (sym__string_literal_double_quotes, STATE 729),
     (sym__string_literal_single_quotes, STATE 729),
     (sym__string_literal_double_quotes_multiple, STATE 729),
     (sym__string_literal_single_quotes_multiple, STATE 729),
     (sym__raw_string_literal_double_quotes, STATE 729),
     (sym__raw_string_literal_single_quotes, STATE 729),
     (sym__raw_string_literal_double_quotes_multiple, STATE 729),
     (sym__raw_string_literal_single_quotes_multiple, STATE 729), (sym_list_literal, STATE 1115),
     (sym_set_or_map_literal, STATE 1115), (sym_null_literal, STATE 1115),
     (sym_record_literal, STATE 1115), (sym__record_literal_no_const, STATE 1187),
     (sym__real_expression, STATE 557), (sym_assignable_expression, STATE 3249),
     (sym_function_expression, STATE 1135), (sym_if_null_expression, STATE 1117),
     (sym_conditional_expression, STATE 1117), (sym_logical_or_expression, STATE 1117),
     (sym_logical_and_expression, STATE 1117), (sym_equality_expression, STATE 1117),
     (sym_type_cast_expression, STATE 1117), (sym_type_test_expression, STATE 1117),
     (sym_relational_expression, STATE 1117), (sym_bitwise_or_expression, STATE 1117),
     (sym_bitwise_xor_expression, STATE 1117), (sym_bitwise_and_expression, STATE 1117),
     (sym_shift_expression, STATE 1117), (sym_additive_expression, STATE 1117),
     (sym_multiplicative_expression, STATE 1117), (sym__unary_expression, STATE 902),
     (sym_unary_expression, STATE 1114), (sym__postfix_expression, STATE 1114),
     (sym_postfix_expression, STATE 1098), (sym_prefix_operator, STATE 417),
     (sym_negation_operator, STATE 1450), (sym__exclamation_operator, STATE 1451),
     (sym_tilde_operator, STATE 1359), (sym_await_expression, STATE 1093),
     (sym_new_expression, STATE 1135), (sym_const_object_expression, STATE 1135),
     (sym__primary, STATE 701), (sym_parenthesized_expression, STATE 1135),
     (sym_constructor_invocation, STATE 691), (sym_constructor_tearoff, STATE 1135),
     (sym_type_arguments, STATE 3081), (sym_switch_expression, STATE 1135),
     (sym_type_parameters, STATE 2932), (sym__type_name, STATE 2826),
     (sym__formal_parameter_part, STATE 2358), (sym_formal_parameter_list, STATE 2020),
     (sym__strict_formal_parameter_list, STATE 2016), (sym__new_builtin, STATE 2074),
     (sym_this, STATE 1135), (sym_super, STATE 1346), (sym_comment, STATE 336),
     (sym_documentation_comment, STATE 336), (aux_sym_string_literal_repeat1, STATE 595),
     (sym_identifier, ACTIONS 846), (anon_sym_POUND, ACTIONS 698),
     (sym_decimal_integer_literal, ACTIONS 700), (sym_hex_integer_literal, ACTIONS 702),
     (sym_decimal_floating_point_literal, ACTIONS 700), (anon_sym_true, ACTIONS 704),
     (anon_sym_false, ACTIONS 706), (anon_sym_DQUOTE, ACTIONS 708),
     (anon_sym_SQUOTE, ACTIONS 710), (anon_sym_DQUOTE_DQUOTE_DQUOTE, ACTIONS 712),
     (anon_sym_SQUOTE_SQUOTE_SQUOTE, ACTIONS 714), (anon_sym_r_DQUOTE, ACTIONS 716),
     (anon_sym_r_SQUOTE, ACTIONS 718), (anon_sym_r_DQUOTE_DQUOTE_DQUOTE, ACTIONS 720),
     (anon_sym_r_SQUOTE_SQUOTE_SQUOTE, ACTIONS 722), (anon_sym_LBRACE, ACTIONS 756),
     (anon_sym_LBRACK, ACTIONS 758), (anon_sym_null, ACTIONS 728),
     (anon_sym_LPAREN, ACTIONS 760), (anon_sym_LT, ACTIONS 111),
     (sym_increment_operator, ACTIONS 734), (sym_minus_operator, ACTIONS 736),
     (anon_sym_BANG, ACTIONS 119), (anon_sym_TILDE, ACTIONS 121), (anon_sym_await, ACTIONS 738),
     (anon_sym_switch, ACTIONS 740), (anon_sym_new, ACTIONS 155),
     (sym_const_builtin, ACTIONS 744), (anon_sym_this, ACTIONS 746),
     (anon_sym_super, ACTIONS 161), (anon_sym_SLASH_SLASH, ACTIONS 3),
     (anon_sym_SLASH_STAR, ACTIONS 5), (anon_sym_SLASH_SLASH_SLASH, ACTIONS 7),
     (sym__block_comment, ACTIONS 9), (sym__documentation_block_comment, ACTIONS 11)]"

lemma row_ok_336: "table_row_ok 336 ts_parse_table_336"
  by (simp add: row_simps ts_parse_table_336_def)

definition ts_parse_table_337 :: table_row where
  "ts_parse_table_337 = [
     (sym__bool_literal, STATE 1115), (sym__numeric_literal, STATE 1115),
     (sym__literal, STATE 1135), (sym_symbol_literal, STATE 1115), (sym_true, STATE 1165),
     (sym_false, STATE 1165), (sym_string_literal, STATE 1115),
     (sym__string_literal_double_quotes, STATE 729),
     (sym__string_literal_single_quotes, STATE 729),
     (sym__string_literal_double_quotes_multiple, STATE 729),
     (sym__string_literal_single_quotes_multiple, STATE 729),
     (sym__raw_string_literal_double_quotes, STATE 729),
     (sym__raw_string_literal_single_quotes, STATE 729),
     (sym__raw_string_literal_double_quotes_multiple, STATE 729),
     (sym__raw_string_literal_single_quotes_multiple, STATE 729), (sym_list_literal, STATE 1115),
     (sym_set_or_map_literal, STATE 1115), (sym_null_literal, STATE 1115),
     (sym_record_literal, STATE 1115), (sym__record_literal_no_const, STATE 1187),
     (sym__real_expression, STATE 555), (sym_assignable_expression, STATE 3249),
     (sym_function_expression, STATE 1135), (sym_if_null_expression, STATE 1117),
     (sym_conditional_expression, STATE 1117), (sym_logical_or_expression, STATE 1117),
     (sym_logical_and_expression, STATE 1117), (sym_equality_expression, STATE 1117),
     (sym_type_cast_expression, STATE 1117), (sym_type_test_expression, STATE 1117),
     (sym_relational_expression, STATE 1117), (sym_bitwise_or_expression, STATE 1117),
     (sym_bitwise_xor_expression, STATE 1117), (sym_bitwise_and_expression, STATE 1117),
     (sym_shift_expression, STATE 1117), (sym_additive_expression, STATE 1117),
     (sym_multiplicative_expression, STATE 1117), (sym__unary_expression, STATE 902),
     (sym_unary_expression, STATE 1114), (sym__postfix_expression, STATE 1114),
     (sym_postfix_expression, STATE 1098), (sym_prefix_operator, STATE 417),
     (sym_negation_operator, STATE 1450), (sym__exclamation_operator, STATE 1451),
     (sym_tilde_operator, STATE 1359), (sym_await_expression, STATE 1093),
     (sym_new_expression, STATE 1135), (sym_const_object_expression, STATE 1135),
     (sym__primary, STATE 701), (sym_parenthesized_expression, STATE 1135),
     (sym_constructor_invocation, STATE 691), (sym_constructor_tearoff, STATE 1135),
     (sym_type_arguments, STATE 3081), (sym_switch_expression, STATE 1135),
     (sym_type_parameters, STATE 2932), (sym__type_name, STATE 2826),
     (sym__formal_parameter_part, STATE 2358), (sym_formal_parameter_list, STATE 2020),
     (sym__strict_formal_parameter_list, STATE 2016), (sym__new_builtin, STATE 2074),
     (sym_this, STATE 1135), (sym_super, STATE 1346), (sym_comment, STATE 337),
     (sym_documentation_comment, STATE 337), (aux_sym_string_literal_repeat1, STATE 595),
     (sym_identifier, ACTIONS 846), (anon_sym_POUND, ACTIONS 698),
     (sym_decimal_integer_literal, ACTIONS 700), (sym_hex_integer_literal, ACTIONS 702),
     (sym_decimal_floating_point_literal, ACTIONS 700), (anon_sym_true, ACTIONS 704),
     (anon_sym_false, ACTIONS 706), (anon_sym_DQUOTE, ACTIONS 708),
     (anon_sym_SQUOTE, ACTIONS 710), (anon_sym_DQUOTE_DQUOTE_DQUOTE, ACTIONS 712),
     (anon_sym_SQUOTE_SQUOTE_SQUOTE, ACTIONS 714), (anon_sym_r_DQUOTE, ACTIONS 716),
     (anon_sym_r_SQUOTE, ACTIONS 718), (anon_sym_r_DQUOTE_DQUOTE_DQUOTE, ACTIONS 720),
     (anon_sym_r_SQUOTE_SQUOTE_SQUOTE, ACTIONS 722), (anon_sym_LBRACE, ACTIONS 756),
     (anon_sym_LBRACK, ACTIONS 758), (anon_sym_null, ACTIONS 728),
     (anon_sym_LPAREN, ACTIONS 760), (anon_sym_LT, ACTIONS 111),
     (sym_increment_operator, ACTIONS 734), (sym_minus_operator, ACTIONS 736),
     (anon_sym_BANG, ACTIONS 119), (anon_sym_TILDE, ACTIONS 121), (anon_sym_await, ACTIONS 738),
     (anon_sym_switch, ACTIONS 740), (anon_sym_new, ACTIONS 155),
     (sym_const_builtin, ACTIONS 744), (anon_sym_this, ACTIONS 746),
     (anon_sym_super, ACTIONS 161), (anon_sym_SLASH_SLASH, ACTIONS 3),
     (anon_sym_SLASH_STAR, ACTIONS 5), (anon_sym_SLASH_SLASH_SLASH, ACTIONS 7),
     (sym__block_comment, ACTIONS 9), (sym__documentation_block_comment, ACTIONS 11)]"

lemma row_ok_337: "table_row_ok 337 ts_parse_table_337"
  by (simp add: row_simps ts_parse_table_337_def)

definition ts_parse_table_338 :: table_row where
  "ts_parse_table_338 = [
     (sym__bool_literal, STATE 1279), (sym__numeric_literal, STATE 1279),
     (sym__literal, STATE 1278), (sym_symbol_literal, STATE 1279), (sym_true, STATE 1275),
     (sym_false, STATE 1275), (sym_string_literal, STATE 1279),
     (sym__string_literal_double_quotes, STATE 799),
     (sym__string_literal_single_quotes, STATE 799),
     (sym__string_literal_double_quotes_multiple, STATE 799),
     (sym__string_literal_single_quotes_multiple, STATE 799),
     (sym__raw_string_literal_double_quotes, STATE 799),
     (sym__raw_string_literal_single_quotes, STATE 799),
     (sym__raw_string_literal_double_quotes_multiple, STATE 799),
     (sym__raw_string_literal_single_quotes_multiple, STATE 799), (sym_list_literal, STATE 1279),
     (sym_set_or_map_literal, STATE 1279), (sym_null_literal, STATE 1279),
     (sym_record_literal, STATE 1279), (sym__record_literal_no_const, STATE 1268),
     (sym__real_expression, STATE 775), (sym_assignable_expression, STATE 3162),
     (sym_function_expression, STATE 1278), (sym_if_null_expression, STATE 1679),
     (sym_conditional_expression, STATE 1679), (sym_logical_or_expression, STATE 1679),
     (sym_logical_and_expression, STATE 1679), (sym_equality_expression, STATE 1679),
     (sym_type_cast_expression, STATE 1679), (sym_type_test_expression, STATE 1679),
     (sym_relational_expression, STATE 1679), (sym_bitwise_or_expression, STATE 1679),
     (sym_bitwise_xor_expression, STATE 1679), (sym_bitwise_and_expression, STATE 1679),
     (sym_shift_expression, STATE 1679), (sym_additive_expression, STATE 1679),
     (sym_multiplicative_expression, STATE 1679), (sym__unary_expression, STATE 1329),
     (sym_unary_expression, STATE 1480), (sym__postfix_expression, STATE 1480),
     (sym_postfix_expression, STATE 1481), (sym_prefix_operator, STATE 428),
     (sym_negation_operator, STATE 1450), (sym__exclamation_operator, STATE 1451),
     (sym_tilde_operator, STATE 1387), (sym_await_expression, STATE 1483),
     (sym_new_expression, STATE 1278), (sym_const_object_expression, STATE 1278),
     (sym__primary, STATE 719), (sym_parenthesized_expression, STATE 1278),
     (sym_constructor_invocation, STATE 728), (sym_constructor_tearoff, STATE 1278),
     (sym_type_arguments, STATE 3100), (sym_switch_expression, STATE 1278),
     (sym_type_parameters, STATE 2932), (sym__type_name, STATE 2949),
     (sym__formal_parameter_part, STATE 2342), (sym_formal_parameter_list, STATE 2020),
     (sym__strict_formal_parameter_list, STATE 2016), (sym__new_builtin, STATE 2091),
     (sym_this, STATE 1278), (sym_super, STATE 1347), (sym_comment, STATE 338),
     (sym_documentation_comment, STATE 338), (aux_sym_string_literal_repeat1, STATE 609),
     (sym_identifier, ACTIONS 842), (anon_sym_POUND, ACTIONS 776),
     (sym_decimal_integer_literal, ACTIONS 778), (sym_hex_integer_literal, ACTIONS 780),
     (sym_decimal_floating_point_literal, ACTIONS 778), (anon_sym_true, ACTIONS 782),
     (anon_sym_false, ACTIONS 784), (anon_sym_DQUOTE, ACTIONS 786),
     (anon_sym_SQUOTE, ACTIONS 788), (anon_sym_DQUOTE_DQUOTE_DQUOTE, ACTIONS 790),
     (anon_sym_SQUOTE_SQUOTE_SQUOTE, ACTIONS 792), (anon_sym_r_DQUOTE, ACTIONS 794),
     (anon_sym_r_SQUOTE, ACTIONS 796), (anon_sym_r_DQUOTE_DQUOTE_DQUOTE, ACTIONS 798),
     (anon_sym_r_SQUOTE_SQUOTE_SQUOTE, ACTIONS 800), (anon_sym_LBRACE, ACTIONS 802),
     (anon_sym_LBRACK, ACTIONS 804), (anon_sym_null, ACTIONS 806),
     (anon_sym_LPAREN, ACTIONS 808), (anon_sym_LT, ACTIONS 111),
     (sym_increment_operator, ACTIONS 812), (sym_minus_operator, ACTIONS 814),
     (anon_sym_BANG, ACTIONS 119), (anon_sym_TILDE, ACTIONS 121), (anon_sym_await, ACTIONS 816),
     (anon_sym_switch, ACTIONS 818), (anon_sym_new, ACTIONS 155),
     (sym_const_builtin, ACTIONS 820), (anon_sym_this, ACTIONS 822),
     (anon_sym_super, ACTIONS 161), (anon_sym_SLASH_SLASH, ACTIONS 3),
     (anon_sym_SLASH_STAR, ACTIONS 5), (anon_sym_SLASH_SLASH_SLASH, ACTIONS 7),
     (sym__block_comment, ACTIONS 9), (sym__documentation_block_comment, ACTIONS 11)]"

lemma row_ok_338: "table_row_ok 338 ts_parse_table_338"
  by (simp add: row_simps ts_parse_table_338_def)

definition ts_parse_table_339 :: table_row where
  "ts_parse_table_339 = [
     (sym__bool_literal, STATE 989), (sym__numeric_literal, STATE 989),
     (sym__literal, STATE 962), (sym_symbol_literal, STATE 989), (sym_true, STATE 900),
     (sym_false, STATE 900), (sym_string_literal, STATE 989),
     (sym__string_literal_double_quotes, STATE 627),
     (sym__string_literal_single_quotes, STATE 627),
     (sym__string_literal_double_quotes_multiple, STATE 627),
     (sym__string_literal_single_quotes_multiple, STATE 627),
     (sym__raw_string_literal_double_quotes, STATE 627),
     (sym__raw_string_literal_single_quotes, STATE 627),
     (sym__raw_string_literal_double_quotes_multiple, STATE 627),
     (sym__raw_string_literal_single_quotes_multiple, STATE 627), (sym_list_literal, STATE 989),
     (sym_set_or_map_literal, STATE 989), (sym_null_literal, STATE 989),
     (sym_record_literal, STATE 989), (sym__record_literal_no_const, STATE 924),
     (sym__real_expression, STATE 780), (sym_assignable_expression, STATE 3070),
     (sym_function_expression, STATE 962), (sym_if_null_expression, STATE 996),
     (sym_conditional_expression, STATE 996), (sym_logical_or_expression, STATE 996),
     (sym_logical_and_expression, STATE 996), (sym_equality_expression, STATE 996),
     (sym_type_cast_expression, STATE 996), (sym_type_test_expression, STATE 996),
     (sym_relational_expression, STATE 996), (sym_bitwise_or_expression, STATE 996),
     (sym_bitwise_xor_expression, STATE 996), (sym_bitwise_and_expression, STATE 996),
     (sym_shift_expression, STATE 996), (sym_additive_expression, STATE 996),
     (sym_multiplicative_expression, STATE 996), (sym__unary_expression, STATE 1323),
     (sym_unary_expression, STATE 994), (sym__postfix_expression, STATE 994),
     (sym_postfix_expression, STATE 993), (sym_prefix_operator, STATE 421),
     (sym_negation_operator, STATE 1450), (sym__exclamation_operator, STATE 1451),
     (sym_tilde_operator, STATE 1357), (sym_await_expression, STATE 991),
     (sym_new_expression, STATE 962), (sym_const_object_expression, STATE 962),
     (sym__primary, STATE 659), (sym_parenthesized_expression, STATE 962),
     (sym_constructor_invocation, STATE 654), (sym_constructor_tearoff, STATE 962),
     (sym_type_arguments, STATE 3146), (sym_switch_expression, STATE 962),
     (sym_type_parameters, STATE 2932), (sym__type_name, STATE 2859),
     (sym__formal_parameter_part, STATE 2339), (sym_formal_parameter_list, STATE 2020),
     (sym__strict_formal_parameter_list, STATE 2016), (sym__new_builtin, STATE 2079),
     (sym_this, STATE 962), (sym_super, STATE 1343), (sym_comment, STATE 339),
     (sym_documentation_comment, STATE 339), (aux_sym_string_literal_repeat1, STATE 474),
     (sym_identifier, ACTIONS 844), (anon_sym_POUND, ACTIONS 73),
     (sym_decimal_integer_literal, ACTIONS 75), (sym_hex_integer_literal, ACTIONS 77),
     (sym_decimal_floating_point_literal, ACTIONS 75), (anon_sym_true, ACTIONS 79),
     (anon_sym_false, ACTIONS 81), (anon_sym_DQUOTE, ACTIONS 83), (anon_sym_SQUOTE, ACTIONS 85),
     (anon_sym_DQUOTE_DQUOTE_DQUOTE, ACTIONS 87), (anon_sym_SQUOTE_SQUOTE_SQUOTE, ACTIONS 89),
     (anon_sym_r_DQUOTE, ACTIONS 91), (anon_sym_r_SQUOTE, ACTIONS 93),
     (anon_sym_r_DQUOTE_DQUOTE_DQUOTE, ACTIONS 95),
     (anon_sym_r_SQUOTE_SQUOTE_SQUOTE, ACTIONS 97), (anon_sym_LBRACE, ACTIONS 766),
     (anon_sym_LBRACK, ACTIONS 768), (anon_sym_null, ACTIONS 105),
     (anon_sym_LPAREN, ACTIONS 770), (anon_sym_LT, ACTIONS 111),
     (sym_increment_operator, ACTIONS 688), (sym_minus_operator, ACTIONS 690),
     (anon_sym_BANG, ACTIONS 119), (anon_sym_TILDE, ACTIONS 121), (anon_sym_await, ACTIONS 692),
     (anon_sym_switch, ACTIONS 412), (anon_sym_new, ACTIONS 155),
     (sym_const_builtin, ACTIONS 478), (anon_sym_this, ACTIONS 159),
     (anon_sym_super, ACTIONS 161), (anon_sym_SLASH_SLASH, ACTIONS 3),
     (anon_sym_SLASH_STAR, ACTIONS 5), (anon_sym_SLASH_SLASH_SLASH, ACTIONS 7),
     (sym__block_comment, ACTIONS 9), (sym__documentation_block_comment, ACTIONS 11)]"

lemma row_ok_339: "table_row_ok 339 ts_parse_table_339"
  by (simp add: row_simps ts_parse_table_339_def)

definition ts_parse_table_340 :: table_row where
  "ts_parse_table_340 = [
     (sym__bool_literal, STATE 989), (sym__numeric_literal, STATE 989),
     (sym__literal, STATE 962), (sym_symbol_literal, STATE 989), (sym_true, STATE 900),
     (sym_false, STATE 900), (sym_string_literal, STATE 989),
     (sym__string_literal_double_quotes, STATE 627),
     (sym__string_literal_single_quotes, STATE 627),
     (sym__string_literal_double_quotes_multiple, STATE 627),
     (sym__string_literal_single_quotes_multiple, STATE 627),
     (sym__raw_string_literal_double_quotes, STATE 627),
     (sym__raw_string_literal_single_quotes, STATE 627),
     (sym__raw_string_literal_double_quotes_multiple, STATE 627),
     (sym__raw_string_literal_single_quotes_multiple, STATE 627), (sym_list_literal, STATE 989),
     (sym_set_or_map_literal, STATE 989), (sym_null_literal, STATE 989),
     (sym_record_literal, STATE 989), (sym__record_literal_no_const, STATE 924),
     (sym__real_expression, STATE 761), (sym_assignable_expression, STATE 3070),
     (sym_function_expression, STATE 962), (sym_if_null_expression, STATE 996),
     (sym_conditional_expression, STATE 996), (sym_logical_or_expression, STATE 996),
     (sym_logical_and_expression, STATE 996), (sym_equality_expression, STATE 996),
     (sym_type_cast_expression, STATE 996), (sym_type_test_expression, STATE 996),
     (sym_relational_expression, STATE 996), (sym_bitwise_or_expression, STATE 996),
     (sym_bitwise_xor_expression, STATE 996), (sym_bitwise_and_expression, STATE 996),
     (sym_shift_expression, STATE 996), (sym_additive_expression, STATE 996),
     (sym_multiplicative_expression, STATE 996), (sym__unary_expression, STATE 1323),
     (sym_unary_expression, STATE 994), (sym__postfix_expression, STATE 994),
     (sym_postfix_expression, STATE 993), (sym_prefix_operator, STATE 421),
     (sym_negation_operator, STATE 1450), (sym__exclamation_operator, STATE 1451),
     (sym_tilde_operator, STATE 1357), (sym_await_expression, STATE 991),
     (sym_new_expression, STATE 962), (sym_const_object_expression, STATE 962),
     (sym__primary, STATE 659), (sym_parenthesized_expression, STATE 962),
     (sym_constructor_invocation, STATE 654), (sym_constructor_tearoff, STATE 962),
     (sym_type_arguments, STATE 3146), (sym_switch_expression, STATE 962),
     (sym_type_parameters, STATE 2932), (sym__type_name, STATE 2859),
     (sym__formal_parameter_part, STATE 2339), (sym_formal_parameter_list, STATE 2020),
     (sym__strict_formal_parameter_list, STATE 2016), (sym__new_builtin, STATE 2079),
     (sym_this, STATE 962), (sym_super, STATE 1343), (sym_comment, STATE 340),
     (sym_documentation_comment, STATE 340), (aux_sym_string_literal_repeat1, STATE 474),
     (sym_identifier, ACTIONS 844), (anon_sym_POUND, ACTIONS 73),
     (sym_decimal_integer_literal, ACTIONS 75), (sym_hex_integer_literal, ACTIONS 77),
     (sym_decimal_floating_point_literal, ACTIONS 75), (anon_sym_true, ACTIONS 79),
     (anon_sym_false, ACTIONS 81), (anon_sym_DQUOTE, ACTIONS 83), (anon_sym_SQUOTE, ACTIONS 85),
     (anon_sym_DQUOTE_DQUOTE_DQUOTE, ACTIONS 87), (anon_sym_SQUOTE_SQUOTE_SQUOTE, ACTIONS 89),
     (anon_sym_r_DQUOTE, ACTIONS 91), (anon_sym_r_SQUOTE, ACTIONS 93),
     (anon_sym_r_DQUOTE_DQUOTE_DQUOTE, ACTIONS 95),
     (anon_sym_r_SQUOTE_SQUOTE_SQUOTE, ACTIONS 97), (anon_sym_LBRACE, ACTIONS 766),
     (anon_sym_LBRACK, ACTIONS 768), (anon_sym_null, ACTIONS 105),
     (anon_sym_LPAREN, ACTIONS 770), (anon_sym_LT, ACTIONS 111),
     (sym_increment_operator, ACTIONS 688), (sym_minus_operator, ACTIONS 690),
     (anon_sym_BANG, ACTIONS 119), (anon_sym_TILDE, ACTIONS 121), (anon_sym_await, ACTIONS 692),
     (anon_sym_switch, ACTIONS 412), (anon_sym_new, ACTIONS 155),
     (sym_const_builtin, ACTIONS 478), (anon_sym_this, ACTIONS 159),
     (anon_sym_super, ACTIONS 161), (anon_sym_SLASH_SLASH, ACTIONS 3),
     (anon_sym_SLASH_STAR, ACTIONS 5), (anon_sym_SLASH_SLASH_SLASH, ACTIONS 7),
     (sym__block_comment, ACTIONS 9), (sym__documentation_block_comment, ACTIONS 11)]"

lemma row_ok_340: "table_row_ok 340 ts_parse_table_340"
  by (simp add: row_simps ts_parse_table_340_def)

definition ts_parse_table_341 :: table_row where
  "ts_parse_table_341 = [
     (sym__bool_literal, STATE 989), (sym__numeric_literal, STATE 989),
     (sym__literal, STATE 962), (sym_symbol_literal, STATE 989), (sym_true, STATE 900),
     (sym_false, STATE 900), (sym_string_literal, STATE 989),
     (sym__string_literal_double_quotes, STATE 627),
     (sym__string_literal_single_quotes, STATE 627),
     (sym__string_literal_double_quotes_multiple, STATE 627),
     (sym__string_literal_single_quotes_multiple, STATE 627),
     (sym__raw_string_literal_double_quotes, STATE 627),
     (sym__raw_string_literal_single_quotes, STATE 627),
     (sym__raw_string_literal_double_quotes_multiple, STATE 627),
     (sym__raw_string_literal_single_quotes_multiple, STATE 627), (sym_list_literal, STATE 989),
     (sym_set_or_map_literal, STATE 989), (sym_null_literal, STATE 989),
     (sym_record_literal, STATE 989), (sym__record_literal_no_const, STATE 924),
     (sym__real_expression, STATE 502), (sym_assignable_expression, STATE 3070),
     (sym_function_expression, STATE 962), (sym_if_null_expression, STATE 996),
     (sym_conditional_expression, STATE 996), (sym_logical_or_expression, STATE 996),
     (sym_logical_and_expression, STATE 996), (sym_equality_expression, STATE 996),
     (sym_type_cast_expression, STATE 996), (sym_type_test_expression, STATE 996),
     (sym_relational_expression, STATE 996), (sym_bitwise_or_expression, STATE 996),
     (sym_bitwise_xor_expression, STATE 996), (sym_bitwise_and_expression, STATE 996),
     (sym_shift_expression, STATE 996), (sym_additive_expression, STATE 996),
     (sym_multiplicative_expression, STATE 996), (sym__unary_expression, STATE 787),
     (sym_unary_expression, STATE 994), (sym__postfix_expression, STATE 994),
     (sym_postfix_expression, STATE 993), (sym_prefix_operator, STATE 421),
     (sym_negation_operator, STATE 1450), (sym__exclamation_operator, STATE 1451),
     (sym_tilde_operator, STATE 1357), (sym_await_expression, STATE 991),
     (sym_new_expression, STATE 962), (sym_const_object_expression, STATE 962),
     (sym__primary, STATE 659), (sym_parenthesized_expression, STATE 962),
     (sym_constructor_invocation, STATE 654), (sym_constructor_tearoff, STATE 962),
     (sym_type_arguments, STATE 3146), (sym_switch_expression, STATE 962),
     (sym_type_parameters, STATE 2932), (sym__type_name, STATE 2859),
     (sym__formal_parameter_part, STATE 2339), (sym_formal_parameter_list, STATE 2020),
     (sym__strict_formal_parameter_list, STATE 2016), (sym__new_builtin, STATE 2079),
     (sym_this, STATE 962), (sym_super, STATE 1340), (sym_comment, STATE 341),
     (sym_documentation_comment, STATE 341), (aux_sym_string_literal_repeat1, STATE 474),
     (sym_identifier, ACTIONS 844), (anon_sym_POUND, ACTIONS 73),
     (sym_decimal_integer_literal, ACTIONS 75), (sym_hex_integer_literal, ACTIONS 77),
     (sym_decimal_floating_point_literal, ACTIONS 75), (anon_sym_true, ACTIONS 79),
     (anon_sym_false, ACTIONS 81), (anon_sym_DQUOTE, ACTIONS 83), (anon_sym_SQUOTE, ACTIONS 85),
     (anon_sym_DQUOTE_DQUOTE_DQUOTE, ACTIONS 87), (anon_sym_SQUOTE_SQUOTE_SQUOTE, ACTIONS 89),
     (anon_sym_r_DQUOTE, ACTIONS 91), (anon_sym_r_SQUOTE, ACTIONS 93),
     (anon_sym_r_DQUOTE_DQUOTE_DQUOTE, ACTIONS 95),
     (anon_sym_r_SQUOTE_SQUOTE_SQUOTE, ACTIONS 97), (anon_sym_LBRACE, ACTIONS 766),
     (anon_sym_LBRACK, ACTIONS 768), (anon_sym_null, ACTIONS 105),
     (anon_sym_LPAREN, ACTIONS 770), (anon_sym_LT, ACTIONS 111),
     (sym_increment_operator, ACTIONS 688), (sym_minus_operator, ACTIONS 690),
     (anon_sym_BANG, ACTIONS 119), (anon_sym_TILDE, ACTIONS 121), (anon_sym_await, ACTIONS 692),
     (anon_sym_switch, ACTIONS 412), (anon_sym_new, ACTIONS 155),
     (sym_const_builtin, ACTIONS 478), (anon_sym_this, ACTIONS 159),
     (anon_sym_super, ACTIONS 161), (anon_sym_SLASH_SLASH, ACTIONS 3),
     (anon_sym_SLASH_STAR, ACTIONS 5), (anon_sym_SLASH_SLASH_SLASH, ACTIONS 7),
     (sym__block_comment, ACTIONS 9), (sym__documentation_block_comment, ACTIONS 11)]"

lemma row_ok_341: "table_row_ok 341 ts_parse_table_341"
  by (simp add: row_simps ts_parse_table_341_def)

definition ts_parse_table_342 :: table_row where
  "ts_parse_table_342 = [
     (sym__bool_literal, STATE 1115), (sym__numeric_literal, STATE 1115),
     (sym__literal, STATE 1135), (sym_symbol_literal, STATE 1115), (sym_true, STATE 1165),
     (sym_false, STATE 1165), (sym_string_literal, STATE 1115),
     (sym__string_literal_double_quotes, STATE 729),
     (sym__string_literal_single_quotes, STATE 729),
     (sym__string_literal_double_quotes_multiple, STATE 729),
     (sym__string_literal_single_quotes_multiple, STATE 729),
     (sym__raw_string_literal_double_quotes, STATE 729),
     (sym__raw_string_literal_single_quotes, STATE 729),
     (sym__raw_string_literal_double_quotes_multiple, STATE 729),
     (sym__raw_string_literal_single_quotes_multiple, STATE 729), (sym_list_literal, STATE 1115),
     (sym_set_or_map_literal, STATE 1115), (sym_null_literal, STATE 1115),
     (sym_record_literal, STATE 1115), (sym__record_literal_no_const, STATE 1187),
     (sym__real_expression, STATE 562), (sym_assignable_expression, STATE 3249),
     (sym_function_expression, STATE 1135), (sym_if_null_expression, STATE 1117),
     (sym_conditional_expression, STATE 1117), (sym_logical_or_expression, STATE 1117),
     (sym_logical_and_expression, STATE 1117), (sym_equality_expression, STATE 1117),
     (sym_type_cast_expression, STATE 1117), (sym_type_test_expression, STATE 1117),
     (sym_relational_expression, STATE 1117), (sym_bitwise_or_expression, STATE 1117),
     (sym_bitwise_xor_expression, STATE 1117), (sym_bitwise_and_expression, STATE 1117),
     (sym_shift_expression, STATE 1117), (sym_additive_expression, STATE 1117),
     (sym_multiplicative_expression, STATE 1117), (sym__unary_expression, STATE 902),
     (sym_unary_expression, STATE 1114), (sym__postfix_expression, STATE 1114),
     (sym_postfix_expression, STATE 1098), (sym_prefix_operator, STATE 417),
     (sym_negation_operator, STATE 1450), (sym__exclamation_operator, STATE 1451),
     (sym_tilde_operator, STATE 1359), (sym_await_expression, STATE 1093),
     (sym_new_expression, STATE 1135), (sym_const_object_expression, STATE 1135),
     (sym__primary, STATE 701), (sym_parenthesized_expression, STATE 1135),
     (sym_constructor_invocation, STATE 691), (sym_constructor_tearoff, STATE 1135),
     (sym_type_arguments, STATE 3081), (sym_switch_expression, STATE 1135),
     (sym_type_parameters, STATE 2932), (sym__type_name, STATE 2826),
     (sym__formal_parameter_part, STATE 2358), (sym_formal_parameter_list, STATE 2020),
     (sym__strict_formal_parameter_list, STATE 2016), (sym__new_builtin, STATE 2074),
     (sym_this, STATE 1135), (sym_super, STATE 1346), (sym_comment, STATE 342),
     (sym_documentation_comment, STATE 342), (aux_sym_string_literal_repeat1, STATE 595),
     (sym_identifier, ACTIONS 846), (anon_sym_POUND, ACTIONS 698),
     (sym_decimal_integer_literal, ACTIONS 700), (sym_hex_integer_literal, ACTIONS 702),
     (sym_decimal_floating_point_literal, ACTIONS 700), (anon_sym_true, ACTIONS 704),
     (anon_sym_false, ACTIONS 706), (anon_sym_DQUOTE, ACTIONS 708),
     (anon_sym_SQUOTE, ACTIONS 710), (anon_sym_DQUOTE_DQUOTE_DQUOTE, ACTIONS 712),
     (anon_sym_SQUOTE_SQUOTE_SQUOTE, ACTIONS 714), (anon_sym_r_DQUOTE, ACTIONS 716),
     (anon_sym_r_SQUOTE, ACTIONS 718), (anon_sym_r_DQUOTE_DQUOTE_DQUOTE, ACTIONS 720),
     (anon_sym_r_SQUOTE_SQUOTE_SQUOTE, ACTIONS 722), (anon_sym_LBRACE, ACTIONS 756),
     (anon_sym_LBRACK, ACTIONS 758), (anon_sym_null, ACTIONS 728),
     (anon_sym_LPAREN, ACTIONS 760), (anon_sym_LT, ACTIONS 111),
     (sym_increment_operator, ACTIONS 734), (sym_minus_operator, ACTIONS 736),
     (anon_sym_BANG, ACTIONS 119), (anon_sym_TILDE, ACTIONS 121), (anon_sym_await, ACTIONS 738),
     (anon_sym_switch, ACTIONS 740), (anon_sym_new, ACTIONS 155),
     (sym_const_builtin, ACTIONS 744), (anon_sym_this, ACTIONS 746),
     (anon_sym_super, ACTIONS 161), (anon_sym_SLASH_SLASH, ACTIONS 3),
     (anon_sym_SLASH_STAR, ACTIONS 5), (anon_sym_SLASH_SLASH_SLASH, ACTIONS 7),
     (sym__block_comment, ACTIONS 9), (sym__documentation_block_comment, ACTIONS 11)]"

lemma row_ok_342: "table_row_ok 342 ts_parse_table_342"
  by (simp add: row_simps ts_parse_table_342_def)

definition ts_parse_table_343 :: table_row where
  "ts_parse_table_343 = [
     (sym__bool_literal, STATE 989), (sym__numeric_literal, STATE 989),
     (sym__literal, STATE 962), (sym_symbol_literal, STATE 989), (sym_true, STATE 900),
     (sym_false, STATE 900), (sym_string_literal, STATE 989),
     (sym__string_literal_double_quotes, STATE 627),
     (sym__string_literal_single_quotes, STATE 627),
     (sym__string_literal_double_quotes_multiple, STATE 627),
     (sym__string_literal_single_quotes_multiple, STATE 627),
     (sym__raw_string_literal_double_quotes, STATE 627),
     (sym__raw_string_literal_single_quotes, STATE 627),
     (sym__raw_string_literal_double_quotes_multiple, STATE 627),
     (sym__raw_string_literal_single_quotes_multiple, STATE 627), (sym_list_literal, STATE 989),
     (sym_set_or_map_literal, STATE 989), (sym_null_literal, STATE 989),
     (sym_record_literal, STATE 989), (sym__record_literal_no_const, STATE 924),
     (sym__real_expression, STATE 495), (sym_assignable_expression, STATE 3070),
     (sym_function_expression, STATE 962), (sym_if_null_expression, STATE 996),
     (sym_conditional_expression, STATE 996), (sym_logical_or_expression, STATE 996),
     (sym_logical_and_expression, STATE 996), (sym_equality_expression, STATE 996),
     (sym_type_cast_expression, STATE 996), (sym_type_test_expression, STATE 996),
     (sym_relational_expression, STATE 996), (sym_bitwise_or_expression, STATE 996),
     (sym_bitwise_xor_expression, STATE 996), (sym_bitwise_and_expression, STATE 996),
     (sym_shift_expression, STATE 996), (sym_additive_expression, STATE 996),
     (sym_multiplicative_expression, STATE 996), (sym__unary_expression, STATE 787),
     (sym_unary_expression, STATE 994), (sym__postfix_expression, STATE 994),
     (sym_postfix_expression, STATE 993), (sym_prefix_operator, STATE 421),
     (sym_negation_operator, STATE 1450), (sym__exclamation_operator, STATE 1451),
     (sym_tilde_operator, STATE 1357), (sym_await_expression, STATE 991),
     (sym_new_expression, STATE 962), (sym_const_object_expression, STATE 962),
     (sym__primary, STATE 659), (sym_parenthesized_expression, STATE 962),
     (sym_constructor_invocation, STATE 654), (sym_constructor_tearoff, STATE 962),
     (sym_type_arguments, STATE 3146), (sym_switch_expression, STATE 962),
     (sym_type_parameters, STATE 2932), (sym__type_name, STATE 2859),
     (sym__formal_parameter_part, STATE 2339), (sym_formal_parameter_list, STATE 2020),
     (sym__strict_formal_parameter_list, STATE 2016), (sym__new_builtin, STATE 2079),
     (sym_this, STATE 962), (sym_super, STATE 1340), (sym_comment, STATE 343),
     (sym_documentation_comment, STATE 343), (aux_sym_string_literal_repeat1, STATE 474),
     (sym_identifier, ACTIONS 844), (anon_sym_POUND, ACTIONS 73),
     (sym_decimal_integer_literal, ACTIONS 75), (sym_hex_integer_literal, ACTIONS 77),
     (sym_decimal_floating_point_literal, ACTIONS 75), (anon_sym_true, ACTIONS 79),
     (anon_sym_false, ACTIONS 81), (anon_sym_DQUOTE, ACTIONS 83), (anon_sym_SQUOTE, ACTIONS 85),
     (anon_sym_DQUOTE_DQUOTE_DQUOTE, ACTIONS 87), (anon_sym_SQUOTE_SQUOTE_SQUOTE, ACTIONS 89),
     (anon_sym_r_DQUOTE, ACTIONS 91), (anon_sym_r_SQUOTE, ACTIONS 93),
     (anon_sym_r_DQUOTE_DQUOTE_DQUOTE, ACTIONS 95),
     (anon_sym_r_SQUOTE_SQUOTE_SQUOTE, ACTIONS 97), (anon_sym_LBRACE, ACTIONS 766),
     (anon_sym_LBRACK, ACTIONS 768), (anon_sym_null, ACTIONS 105),
     (anon_sym_LPAREN, ACTIONS 770), (anon_sym_LT, ACTIONS 111),
     (sym_increment_operator, ACTIONS 688), (sym_minus_operator, ACTIONS 690),
     (anon_sym_BANG, ACTIONS 119), (anon_sym_TILDE, ACTIONS 121), (anon_sym_await, ACTIONS 692),
     (anon_sym_switch, ACTIONS 412), (anon_sym_new, ACTIONS 155),
     (sym_const_builtin, ACTIONS 478), (anon_sym_this, ACTIONS 159),
     (anon_sym_super, ACTIONS 161), (anon_sym_SLASH_SLASH, ACTIONS 3),
     (anon_sym_SLASH_STAR, ACTIONS 5), (anon_sym_SLASH_SLASH_SLASH, ACTIONS 7),
     (sym__block_comment, ACTIONS 9), (sym__documentation_block_comment, ACTIONS 11)]"

lemma row_ok_343: "table_row_ok 343 ts_parse_table_343"
  by (simp add: row_simps ts_parse_table_343_def)

definition ts_parse_table_344 :: table_row where
  "ts_parse_table_344 = [
     (sym__bool_literal, STATE 1279), (sym__numeric_literal, STATE 1279),
     (sym__literal, STATE 1278), (sym_symbol_literal, STATE 1279), (sym_true, STATE 1275),
     (sym_false, STATE 1275), (sym_string_literal, STATE 1279),
     (sym__string_literal_double_quotes, STATE 799),
     (sym__string_literal_single_quotes, STATE 799),
     (sym__string_literal_double_quotes_multiple, STATE 799),
     (sym__string_literal_single_quotes_multiple, STATE 799),
     (sym__raw_string_literal_double_quotes, STATE 799),
     (sym__raw_string_literal_single_quotes, STATE 799),
     (sym__raw_string_literal_double_quotes_multiple, STATE 799),
     (sym__raw_string_literal_single_quotes_multiple, STATE 799), (sym_list_literal, STATE 1279),
     (sym_set_or_map_literal, STATE 1279), (sym_null_literal, STATE 1279),
     (sym_record_literal, STATE 1279), (sym__record_literal_no_const, STATE 1268),
     (sym__real_expression, STATE 773), (sym_assignable_expression, STATE 3162),
     (sym_function_expression, STATE 1278), (sym_if_null_expression, STATE 1679),
     (sym_conditional_expression, STATE 1679), (sym_logical_or_expression, STATE 1679),
     (sym_logical_and_expression, STATE 1679), (sym_equality_expression, STATE 1679),
     (sym_type_cast_expression, STATE 1679), (sym_type_test_expression, STATE 1679),
     (sym_relational_expression, STATE 1679), (sym_bitwise_or_expression, STATE 1679),
     (sym_bitwise_xor_expression, STATE 1679), (sym_bitwise_and_expression, STATE 1679),
     (sym_shift_expression, STATE 1679), (sym_additive_expression, STATE 1679),
     (sym_multiplicative_expression, STATE 1679), (sym__unary_expression, STATE 1329),
     (sym_unary_expression, STATE 1480), (sym__postfix_expression, STATE 1480),
     (sym_postfix_expression, STATE 1481), (sym_prefix_operator, STATE 428),
     (sym_negation_operator, STATE 1450), (sym__exclamation_operator, STATE 1451),
     (sym_tilde_operator, STATE 1387), (sym_await_expression, STATE 1483),
     (sym_new_expression, STATE 1278), (sym_const_object_expression, STATE 1278),
     (sym__primary, STATE 719), (sym_parenthesized_expression, STATE 1278),
     (sym_constructor_invocation, STATE 728), (sym_constructor_tearoff, STATE 1278),
     (sym_type_arguments, STATE 3100), (sym_switch_expression, STATE 1278),
     (sym_type_parameters, STATE 2932), (sym__type_name, STATE 2949),
     (sym__formal_parameter_part, STATE 2342), (sym_formal_parameter_list, STATE 2020),
     (sym__strict_formal_parameter_list, STATE 2016), (sym__new_builtin, STATE 2091),
     (sym_this, STATE 1278), (sym_super, STATE 1347), (sym_comment, STATE 344),
     (sym_documentation_comment, STATE 344), (aux_sym_string_literal_repeat1, STATE 609),
     (sym_identifier, ACTIONS 842), (anon_sym_POUND, ACTIONS 776),
     (sym_decimal_integer_literal, ACTIONS 778), (sym_hex_integer_literal, ACTIONS 780),
     (sym_decimal_floating_point_literal, ACTIONS 778), (anon_sym_true, ACTIONS 782),
     (anon_sym_false, ACTIONS 784), (anon_sym_DQUOTE, ACTIONS 786),
     (anon_sym_SQUOTE, ACTIONS 788), (anon_sym_DQUOTE_DQUOTE_DQUOTE, ACTIONS 790),
     (anon_sym_SQUOTE_SQUOTE_SQUOTE, ACTIONS 792), (anon_sym_r_DQUOTE, ACTIONS 794),
     (anon_sym_r_SQUOTE, ACTIONS 796), (anon_sym_r_DQUOTE_DQUOTE_DQUOTE, ACTIONS 798),
     (anon_sym_r_SQUOTE_SQUOTE_SQUOTE, ACTIONS 800), (anon_sym_LBRACE, ACTIONS 802),
     (anon_sym_LBRACK, ACTIONS 804), (anon_sym_null, ACTIONS 806),
     (anon_sym_LPAREN, ACTIONS 808), (anon_sym_LT, ACTIONS 111),
     (sym_increment_operator, ACTIONS 812), (sym_minus_operator, ACTIONS 814),
     (anon_sym_BANG, ACTIONS 119), (anon_sym_TILDE, ACTIONS 121), (anon_sym_await, ACTIONS 816),
     (anon_sym_switch, ACTIONS 818), (anon_sym_new, ACTIONS 155),
     (sym_const_builtin, ACTIONS 820), (anon_sym_this, ACTIONS 822),
     (anon_sym_super, ACTIONS 161), (anon_sym_SLASH_SLASH, ACTIONS 3),
     (anon_sym_SLASH_STAR, ACTIONS 5), (anon_sym_SLASH_SLASH_SLASH, ACTIONS 7),
     (sym__block_comment, ACTIONS 9), (sym__documentation_block_comment, ACTIONS 11)]"

lemma row_ok_344: "table_row_ok 344 ts_parse_table_344"
  by (simp add: row_simps ts_parse_table_344_def)

definition ts_parse_table_345 :: table_row where
  "ts_parse_table_345 = [
     (sym__bool_literal, STATE 1279), (sym__numeric_literal, STATE 1279),
     (sym__literal, STATE 1278), (sym_symbol_literal, STATE 1279), (sym_true, STATE 1275),
     (sym_false, STATE 1275), (sym_string_literal, STATE 1279),
     (sym__string_literal_double_quotes, STATE 799),
     (sym__string_literal_single_quotes, STATE 799),
     (sym__string_literal_double_quotes_multiple, STATE 799),
     (sym__string_literal_single_quotes_multiple, STATE 799),
     (sym__raw_string_literal_double_quotes, STATE 799),
     (sym__raw_string_literal_single_quotes, STATE 799),
     (sym__raw_string_literal_double_quotes_multiple, STATE 799),
     (sym__raw_string_literal_single_quotes_multiple, STATE 799), (sym_list_literal, STATE 1279),
     (sym_set_or_map_literal, STATE 1279), (sym_null_literal, STATE 1279),
     (sym_record_literal, STATE 1279), (sym__record_literal_no_const, STATE 1268),
     (sym__real_expression, STATE 762), (sym_assignable_expression, STATE 3162),
     (sym_function_expression, STATE 1278), (sym_if_null_expression, STATE 1679),
     (sym_conditional_expression, STATE 1679), (sym_logical_or_expression, STATE 1679),
     (sym_logical_and_expression, STATE 1679), (sym_equality_expression, STATE 1679),
     (sym_type_cast_expression, STATE 1679), (sym_type_test_expression, STATE 1679),
     (sym_relational_expression, STATE 1679), (sym_bitwise_or_expression, STATE 1679),
     (sym_bitwise_xor_expression, STATE 1679), (sym_bitwise_and_expression, STATE 1679),
     (sym_shift_expression, STATE 1679), (sym_additive_expression, STATE 1679),
     (sym_multiplicative_expression, STATE 1679), (sym__unary_expression, STATE 1329),
     (sym_unary_expression, STATE 1480), (sym__postfix_expression, STATE 1480),
     (sym_postfix_expression, STATE 1481), (sym_prefix_operator, STATE 428),
     (sym_negation_operator, STATE 1450), (sym__exclamation_operator, STATE 1451),
     (sym_tilde_operator, STATE 1387), (sym_await_expression, STATE 1483),
     (sym_new_expression, STATE 1278), (sym_const_object_expression, STATE 1278),
     (sym__primary, STATE 719), (sym_parenthesized_expression, STATE 1278),
     (sym_constructor_invocation, STATE 728), (sym_constructor_tearoff, STATE 1278),
     (sym_type_arguments, STATE 3100), (sym_switch_expression, STATE 1278),
     (sym_type_parameters, STATE 2932), (sym__type_name, STATE 2949),
     (sym__formal_parameter_part, STATE 2342), (sym_formal_parameter_list, STATE 2020),
     (sym__strict_formal_parameter_list, STATE 2016), (sym__new_builtin, STATE 2091),
     (sym_this, STATE 1278), (sym_super, STATE 1347), (sym_comment, STATE 345),
     (sym_documentation_comment, STATE 345), (aux_sym_string_literal_repeat1, STATE 609),
     (sym_identifier, ACTIONS 842), (anon_sym_POUND, ACTIONS 776),
     (sym_decimal_integer_literal, ACTIONS 778), (sym_hex_integer_literal, ACTIONS 780),
     (sym_decimal_floating_point_literal, ACTIONS 778), (anon_sym_true, ACTIONS 782),
     (anon_sym_false, ACTIONS 784), (anon_sym_DQUOTE, ACTIONS 786),
     (anon_sym_SQUOTE, ACTIONS 788), (anon_sym_DQUOTE_DQUOTE_DQUOTE, ACTIONS 790),
     (anon_sym_SQUOTE_SQUOTE_SQUOTE, ACTIONS 792), (anon_sym_r_DQUOTE, ACTIONS 794),
     (anon_sym_r_SQUOTE, ACTIONS 796), (anon_sym_r_DQUOTE_DQUOTE_DQUOTE, ACTIONS 798),
     (anon_sym_r_SQUOTE_SQUOTE_SQUOTE, ACTIONS 800), (anon_sym_LBRACE, ACTIONS 802),
     (anon_sym_LBRACK, ACTIONS 804), (anon_sym_null, ACTIONS 806),
     (anon_sym_LPAREN, ACTIONS 808), (anon_sym_LT, ACTIONS 111),
     (sym_increment_operator, ACTIONS 812), (sym_minus_operator, ACTIONS 814),
     (anon_sym_BANG, ACTIONS 119), (anon_sym_TILDE, ACTIONS 121), (anon_sym_await, ACTIONS 816),
     (anon_sym_switch, ACTIONS 818), (anon_sym_new, ACTIONS 155),
     (sym_const_builtin, ACTIONS 820), (anon_sym_this, ACTIONS 822),
     (anon_sym_super, ACTIONS 161), (anon_sym_SLASH_SLASH, ACTIONS 3),
     (anon_sym_SLASH_STAR, ACTIONS 5), (anon_sym_SLASH_SLASH_SLASH, ACTIONS 7),
     (sym__block_comment, ACTIONS 9), (sym__documentation_block_comment, ACTIONS 11)]"

lemma row_ok_345: "table_row_ok 345 ts_parse_table_345"
  by (simp add: row_simps ts_parse_table_345_def)

definition ts_parse_table_346 :: table_row where
  "ts_parse_table_346 = [
     (sym__bool_literal, STATE 1279), (sym__numeric_literal, STATE 1279),
     (sym__literal, STATE 1278), (sym_symbol_literal, STATE 1279), (sym_true, STATE 1275),
     (sym_false, STATE 1275), (sym_string_literal, STATE 1279),
     (sym__string_literal_double_quotes, STATE 799),
     (sym__string_literal_single_quotes, STATE 799),
     (sym__string_literal_double_quotes_multiple, STATE 799),
     (sym__string_literal_single_quotes_multiple, STATE 799),
     (sym__raw_string_literal_double_quotes, STATE 799),
     (sym__raw_string_literal_single_quotes, STATE 799),
     (sym__raw_string_literal_double_quotes_multiple, STATE 799),
     (sym__raw_string_literal_single_quotes_multiple, STATE 799), (sym_list_literal, STATE 1279),
     (sym_set_or_map_literal, STATE 1279), (sym_null_literal, STATE 1279),
     (sym_record_literal, STATE 1279), (sym__record_literal_no_const, STATE 1268),
     (sym__real_expression, STATE 769), (sym_assignable_expression, STATE 3162),
     (sym_function_expression, STATE 1278), (sym_if_null_expression, STATE 1679),
     (sym_conditional_expression, STATE 1679), (sym_logical_or_expression, STATE 1679),
     (sym_logical_and_expression, STATE 1679), (sym_equality_expression, STATE 1679),
     (sym_type_cast_expression, STATE 1679), (sym_type_test_expression, STATE 1679),
     (sym_relational_expression, STATE 1679), (sym_bitwise_or_expression, STATE 1679),
     (sym_bitwise_xor_expression, STATE 1679), (sym_bitwise_and_expression, STATE 1679),
     (sym_shift_expression, STATE 1679), (sym_additive_expression, STATE 1679),
     (sym_multiplicative_expression, STATE 1679), (sym__unary_expression, STATE 1329),
     (sym_unary_expression, STATE 1480), (sym__postfix_expression, STATE 1480),
     (sym_postfix_expression, STATE 1481), (sym_prefix_operator, STATE 428),
     (sym_negation_operator, STATE 1450), (sym__exclamation_operator, STATE 1451),
     (sym_tilde_operator, STATE 1387), (sym_await_expression, STATE 1483),
     (sym_new_expression, STATE 1278), (sym_const_object_expression, STATE 1278),
     (sym__primary, STATE 719), (sym_parenthesized_expression, STATE 1278),
     (sym_constructor_invocation, STATE 728), (sym_constructor_tearoff, STATE 1278),
     (sym_type_arguments, STATE 3100), (sym_switch_expression, STATE 1278),
     (sym_type_parameters, STATE 2932), (sym__type_name, STATE 2949),
     (sym__formal_parameter_part, STATE 2342), (sym_formal_parameter_list, STATE 2020),
     (sym__strict_formal_parameter_list, STATE 2016), (sym__new_builtin, STATE 2091),
     (sym_this, STATE 1278), (sym_super, STATE 1347), (sym_comment, STATE 346),
     (sym_documentation_comment, STATE 346), (aux_sym_string_literal_repeat1, STATE 609),
     (sym_identifier, ACTIONS 842), (anon_sym_POUND, ACTIONS 776),
     (sym_decimal_integer_literal, ACTIONS 778), (sym_hex_integer_literal, ACTIONS 780),
     (sym_decimal_floating_point_literal, ACTIONS 778), (anon_sym_true, ACTIONS 782),
     (anon_sym_false, ACTIONS 784), (anon_sym_DQUOTE, ACTIONS 786),
     (anon_sym_SQUOTE, ACTIONS 788), (anon_sym_DQUOTE_DQUOTE_DQUOTE, ACTIONS 790),
     (anon_sym_SQUOTE_SQUOTE_SQUOTE, ACTIONS 792), (anon_sym_r_DQUOTE, ACTIONS 794),
     (anon_sym_r_SQUOTE, ACTIONS 796), (anon_sym_r_DQUOTE_DQUOTE_DQUOTE, ACTIONS 798),
     (anon_sym_r_SQUOTE_SQUOTE_SQUOTE, ACTIONS 800), (anon_sym_LBRACE, ACTIONS 802),
     (anon_sym_LBRACK, ACTIONS 804), (anon_sym_null, ACTIONS 806),
     (anon_sym_LPAREN, ACTIONS 808), (anon_sym_LT, ACTIONS 111),
     (sym_increment_operator, ACTIONS 812), (sym_minus_operator, ACTIONS 814),
     (anon_sym_BANG, ACTIONS 119), (anon_sym_TILDE, ACTIONS 121), (anon_sym_await, ACTIONS 816),
     (anon_sym_switch, ACTIONS 818), (anon_sym_new, ACTIONS 155),
     (sym_const_builtin, ACTIONS 820), (anon_sym_this, ACTIONS 822),
     (anon_sym_super, ACTIONS 161), (anon_sym_SLASH_SLASH, ACTIONS 3),
     (anon_sym_SLASH_STAR, ACTIONS 5), (anon_sym_SLASH_SLASH_SLASH, ACTIONS 7),
     (sym__block_comment, ACTIONS 9), (sym__documentation_block_comment, ACTIONS 11)]"

lemma row_ok_346: "table_row_ok 346 ts_parse_table_346"
  by (simp add: row_simps ts_parse_table_346_def)

definition ts_parse_table_347 :: table_row where
  "ts_parse_table_347 = [
     (sym__bool_literal, STATE 1279), (sym__numeric_literal, STATE 1279),
     (sym__literal, STATE 1278), (sym_symbol_literal, STATE 1279), (sym_true, STATE 1275),
     (sym_false, STATE 1275), (sym_string_literal, STATE 1279),
     (sym__string_literal_double_quotes, STATE 799),
     (sym__string_literal_single_quotes, STATE 799),
     (sym__string_literal_double_quotes_multiple, STATE 799),
     (sym__string_literal_single_quotes_multiple, STATE 799),
     (sym__raw_string_literal_double_quotes, STATE 799),
     (sym__raw_string_literal_single_quotes, STATE 799),
     (sym__raw_string_literal_double_quotes_multiple, STATE 799),
     (sym__raw_string_literal_single_quotes_multiple, STATE 799), (sym_list_literal, STATE 1279),
     (sym_set_or_map_literal, STATE 1279), (sym_null_literal, STATE 1279),
     (sym_record_literal, STATE 1279), (sym__record_literal_no_const, STATE 1268),
     (sym__real_expression, STATE 765), (sym_assignable_expression, STATE 3162),
     (sym_function_expression, STATE 1278), (sym_if_null_expression, STATE 1679),
     (sym_conditional_expression, STATE 1679), (sym_logical_or_expression, STATE 1679),
     (sym_logical_and_expression, STATE 1679), (sym_equality_expression, STATE 1679),
     (sym_type_cast_expression, STATE 1679), (sym_type_test_expression, STATE 1679),
     (sym_relational_expression, STATE 1679), (sym_bitwise_or_expression, STATE 1679),
     (sym_bitwise_xor_expression, STATE 1679), (sym_bitwise_and_expression, STATE 1679),
     (sym_shift_expression, STATE 1679), (sym_additive_expression, STATE 1679),
     (sym_multiplicative_expression, STATE 1679), (sym__unary_expression, STATE 1329),
     (sym_unary_expression, STATE 1480), (sym__postfix_expression, STATE 1480),
     (sym_postfix_expression, STATE 1481), (sym_prefix_operator, STATE 428),
     (sym_negation_operator, STATE 1450), (sym__exclamation_operator, STATE 1451),
     (sym_tilde_operator, STATE 1387), (sym_await_expression, STATE 1483),
     (sym_new_expression, STATE 1278), (sym_const_object_expression, STATE 1278),
     (sym__primary, STATE 719), (sym_parenthesized_expression, STATE 1278),
     (sym_constructor_invocation, STATE 728), (sym_constructor_tearoff, STATE 1278),
     (sym_type_arguments, STATE 3100), (sym_switch_expression, STATE 1278),
     (sym_type_parameters, STATE 2932), (sym__type_name, STATE 2949),
     (sym__formal_parameter_part, STATE 2342), (sym_formal_parameter_list, STATE 2020),
     (sym__strict_formal_parameter_list, STATE 2016), (sym__new_builtin, STATE 2091),
     (sym_this, STATE 1278), (sym_super, STATE 1347), (sym_comment, STATE 347),
     (sym_documentation_comment, STATE 347), (aux_sym_string_literal_repeat1, STATE 609),
     (sym_identifier, ACTIONS 842), (anon_sym_POUND, ACTIONS 776),
     (sym_decimal_integer_literal, ACTIONS 778), (sym_hex_integer_literal, ACTIONS 780),
     (sym_decimal_floating_point_literal, ACTIONS 778), (anon_sym_true, ACTIONS 782),
     (anon_sym_false, ACTIONS 784), (anon_sym_DQUOTE, ACTIONS 786),
     (anon_sym_SQUOTE, ACTIONS 788), (anon_sym_DQUOTE_DQUOTE_DQUOTE, ACTIONS 790),
     (anon_sym_SQUOTE_SQUOTE_SQUOTE, ACTIONS 792), (anon_sym_r_DQUOTE, ACTIONS 794),
     (anon_sym_r_SQUOTE, ACTIONS 796), (anon_sym_r_DQUOTE_DQUOTE_DQUOTE, ACTIONS 798),
     (anon_sym_r_SQUOTE_SQUOTE_SQUOTE, ACTIONS 800), (anon_sym_LBRACE, ACTIONS 802),
     (anon_sym_LBRACK, ACTIONS 804), (anon_sym_null, ACTIONS 806),
     (anon_sym_LPAREN, ACTIONS 808), (anon_sym_LT, ACTIONS 111),
     (sym_increment_operator, ACTIONS 812), (sym_minus_operator, ACTIONS 814),
     (anon_sym_BANG, ACTIONS 119), (anon_sym_TILDE, ACTIONS 121), (anon_sym_await, ACTIONS 816),
     (anon_sym_switch, ACTIONS 818), (anon_sym_new, ACTIONS 155),
     (sym_const_builtin, ACTIONS 820), (anon_sym_this, ACTIONS 822),
     (anon_sym_super, ACTIONS 161), (anon_sym_SLASH_SLASH, ACTIONS 3),
     (anon_sym_SLASH_STAR, ACTIONS 5), (anon_sym_SLASH_SLASH_SLASH, ACTIONS 7),
     (sym__block_comment, ACTIONS 9), (sym__documentation_block_comment, ACTIONS 11)]"

lemma row_ok_347: "table_row_ok 347 ts_parse_table_347"
  by (simp add: row_simps ts_parse_table_347_def)

definition ts_parse_table_348 :: table_row where
  "ts_parse_table_348 = [
     (sym__bool_literal, STATE 1279), (sym__numeric_literal, STATE 1279),
     (sym__literal, STATE 1278), (sym_symbol_literal, STATE 1279), (sym_true, STATE 1275),
     (sym_false, STATE 1275), (sym_string_literal, STATE 1279),
     (sym__string_literal_double_quotes, STATE 799),
     (sym__string_literal_single_quotes, STATE 799),
     (sym__string_literal_double_quotes_multiple, STATE 799),
     (sym__string_literal_single_quotes_multiple, STATE 799),
     (sym__raw_string_literal_double_quotes, STATE 799),
     (sym__raw_string_literal_single_quotes, STATE 799),
     (sym__raw_string_literal_double_quotes_multiple, STATE 799),
     (sym__raw_string_literal_single_quotes_multiple, STATE 799), (sym_list_literal, STATE 1279),
     (sym_set_or_map_literal, STATE 1279), (sym_null_literal, STATE 1279),
     (sym_record_literal, STATE 1279), (sym__record_literal_no_const, STATE 1268),
     (sym__real_expression, STATE 760), (sym_assignable_expression, STATE 3162),
     (sym_function_expression, STATE 1278), (sym_if_null_expression, STATE 1679),
     (sym_conditional_expression, STATE 1679), (sym_logical_or_expression, STATE 1679),
     (sym_logical_and_expression, STATE 1679), (sym_equality_expression, STATE 1679),
     (sym_type_cast_expression, STATE 1679), (sym_type_test_expression, STATE 1679),
     (sym_relational_expression, STATE 1679), (sym_bitwise_or_expression, STATE 1679),
     (sym_bitwise_xor_expression, STATE 1679), (sym_bitwise_and_expression, STATE 1679),
     (sym_shift_expression, STATE 1679), (sym_additive_expression, STATE 1679),
     (sym_multiplicative_expression, STATE 1679), (sym__unary_expression, STATE 1329),
     (sym_unary_expression, STATE 1480), (sym__postfix_expression, STATE 1480),
     (sym_postfix_expression, STATE 1481), (sym_prefix_operator, STATE 428),
     (sym_negation_operator, STATE 1450), (sym__exclamation_operator, STATE 1451),
     (sym_tilde_operator, STATE 1387), (sym_await_expression, STATE 1483),
     (sym_new_expression, STATE 1278), (sym_const_object_expression, STATE 1278),
     (sym__primary, STATE 719), (sym_parenthesized_expression, STATE 1278),
     (sym_constructor_invocation, STATE 728), (sym_constructor_tearoff, STATE 1278),
     (sym_type_arguments, STATE 3100), (sym_switch_expression, STATE 1278),
     (sym_type_parameters, STATE 2932), (sym__type_name, STATE 2949),
     (sym__formal_parameter_part, STATE 2342), (sym_formal_parameter_list, STATE 2020),
     (sym__strict_formal_parameter_list, STATE 2016), (sym__new_builtin, STATE 2091),
     (sym_this, STATE 1278), (sym_super, STATE 1347), (sym_comment, STATE 348),
     (sym_documentation_comment, STATE 348), (aux_sym_string_literal_repeat1, STATE 609),
     (sym_identifier, ACTIONS 842), (anon_sym_POUND, ACTIONS 776),
     (sym_decimal_integer_literal, ACTIONS 778), (sym_hex_integer_literal, ACTIONS 780),
     (sym_decimal_floating_point_literal, ACTIONS 778), (anon_sym_true, ACTIONS 782),
     (anon_sym_false, ACTIONS 784), (anon_sym_DQUOTE, ACTIONS 786),
     (anon_sym_SQUOTE, ACTIONS 788), (anon_sym_DQUOTE_DQUOTE_DQUOTE, ACTIONS 790),
     (anon_sym_SQUOTE_SQUOTE_SQUOTE, ACTIONS 792), (anon_sym_r_DQUOTE, ACTIONS 794),
     (anon_sym_r_SQUOTE, ACTIONS 796), (anon_sym_r_DQUOTE_DQUOTE_DQUOTE, ACTIONS 798),
     (anon_sym_r_SQUOTE_SQUOTE_SQUOTE, ACTIONS 800), (anon_sym_LBRACE, ACTIONS 802),
     (anon_sym_LBRACK, ACTIONS 804), (anon_sym_null, ACTIONS 806),
     (anon_sym_LPAREN, ACTIONS 808), (anon_sym_LT, ACTIONS 111),
     (sym_increment_operator, ACTIONS 812), (sym_minus_operator, ACTIONS 814),
     (anon_sym_BANG, ACTIONS 119), (anon_sym_TILDE, ACTIONS 121), (anon_sym_await, ACTIONS 816),
     (anon_sym_switch, ACTIONS 818), (anon_sym_new, ACTIONS 155),
     (sym_const_builtin, ACTIONS 820), (anon_sym_this, ACTIONS 822),
     (anon_sym_super, ACTIONS 161), (anon_sym_SLASH_SLASH, ACTIONS 3),
     (anon_sym_SLASH_STAR, ACTIONS 5), (anon_sym_SLASH_SLASH_SLASH, ACTIONS 7),
     (sym__block_comment, ACTIONS 9), (sym__documentation_block_comment, ACTIONS 11)]"

lemma row_ok_348: "table_row_ok 348 ts_parse_table_348"
  by (simp add: row_simps ts_parse_table_348_def)

definition ts_parse_table_349 :: table_row where
  "ts_parse_table_349 = [
     (sym__bool_literal, STATE 1279), (sym__numeric_literal, STATE 1279),
     (sym__literal, STATE 1278), (sym_symbol_literal, STATE 1279), (sym_true, STATE 1275),
     (sym_false, STATE 1275), (sym_string_literal, STATE 1279),
     (sym__string_literal_double_quotes, STATE 799),
     (sym__string_literal_single_quotes, STATE 799),
     (sym__string_literal_double_quotes_multiple, STATE 799),
     (sym__string_literal_single_quotes_multiple, STATE 799),
     (sym__raw_string_literal_double_quotes, STATE 799),
     (sym__raw_string_literal_single_quotes, STATE 799),
     (sym__raw_string_literal_double_quotes_multiple, STATE 799),
     (sym__raw_string_literal_single_quotes_multiple, STATE 799), (sym_list_literal, STATE 1279),
     (sym_set_or_map_literal, STATE 1279), (sym_null_literal, STATE 1279),
     (sym_record_literal, STATE 1279), (sym__record_literal_no_const, STATE 1268),
     (sym__real_expression, STATE 755), (sym_assignable_expression, STATE 3162),
     (sym_function_expression, STATE 1278), (sym_if_null_expression, STATE 1679),
     (sym_conditional_expression, STATE 1679), (sym_logical_or_expression, STATE 1679),
     (sym_logical_and_expression, STATE 1679), (sym_equality_expression, STATE 1679),
     (sym_type_cast_expression, STATE 1679), (sym_type_test_expression, STATE 1679),
     (sym_relational_expression, STATE 1679), (sym_bitwise_or_expression, STATE 1679),
     (sym_bitwise_xor_expression, STATE 1679), (sym_bitwise_and_expression, STATE 1679),
     (sym_shift_expression, STATE 1679), (sym_additive_expression, STATE 1679),
     (sym_multiplicative_expression, STATE 1679), (sym__unary_expression, STATE 1329),
     (sym_unary_expression, STATE 1480), (sym__postfix_expression, STATE 1480),
     (sym_postfix_expression, STATE 1481), (sym_prefix_operator, STATE 428),
     (sym_negation_operator, STATE 1450), (sym__exclamation_operator, STATE 1451),
     (sym_tilde_operator, STATE 1387), (sym_await_expression, STATE 1483),
     (sym_new_expression, STATE 1278), (sym_const_object_expression, STATE 1278),
     (sym__primary, STATE 719), (sym_parenthesized_expression, STATE 1278),
     (sym_constructor_invocation, STATE 728), (sym_constructor_tearoff, STATE 1278),
     (sym_type_arguments, STATE 3100), (sym_switch_expression, STATE 1278),
     (sym_type_parameters, STATE 2932), (sym__type_name, STATE 2949),
     (sym__formal_parameter_part, STATE 2342), (sym_formal_parameter_list, STATE 2020),
     (sym__strict_formal_parameter_list, STATE 2016), (sym__new_builtin, STATE 2091),
     (sym_this, STATE 1278), (sym_super, STATE 1347), (sym_comment, STATE 349),
     (sym_documentation_comment, STATE 349), (aux_sym_string_literal_repeat1, STATE 609),
     (sym_identifier, ACTIONS 842), (anon_sym_POUND, ACTIONS 776),
     (sym_decimal_integer_literal, ACTIONS 778), (sym_hex_integer_literal, ACTIONS 780),
     (sym_decimal_floating_point_literal, ACTIONS 778), (anon_sym_true, ACTIONS 782),
     (anon_sym_false, ACTIONS 784), (anon_sym_DQUOTE, ACTIONS 786),
     (anon_sym_SQUOTE, ACTIONS 788), (anon_sym_DQUOTE_DQUOTE_DQUOTE, ACTIONS 790),
     (anon_sym_SQUOTE_SQUOTE_SQUOTE, ACTIONS 792), (anon_sym_r_DQUOTE, ACTIONS 794),
     (anon_sym_r_SQUOTE, ACTIONS 796), (anon_sym_r_DQUOTE_DQUOTE_DQUOTE, ACTIONS 798),
     (anon_sym_r_SQUOTE_SQUOTE_SQUOTE, ACTIONS 800), (anon_sym_LBRACE, ACTIONS 802),
     (anon_sym_LBRACK, ACTIONS 804), (anon_sym_null, ACTIONS 806),
     (anon_sym_LPAREN, ACTIONS 808), (anon_sym_LT, ACTIONS 111),
     (sym_increment_operator, ACTIONS 812), (sym_minus_operator, ACTIONS 814),
     (anon_sym_BANG, ACTIONS 119), (anon_sym_TILDE, ACTIONS 121), (anon_sym_await, ACTIONS 816),
     (anon_sym_switch, ACTIONS 818), (anon_sym_new, ACTIONS 155),
     (sym_const_builtin, ACTIONS 820), (anon_sym_this, ACTIONS 822),
     (anon_sym_super, ACTIONS 161), (anon_sym_SLASH_SLASH, ACTIONS 3),
     (anon_sym_SLASH_STAR, ACTIONS 5), (anon_sym_SLASH_SLASH_SLASH, ACTIONS 7),
     (sym__block_comment, ACTIONS 9), (sym__documentation_block_comment, ACTIONS 11)]"

lemma row_ok_349: "table_row_ok 349 ts_parse_table_349"
  by (simp add: row_simps ts_parse_table_349_def)

definition ts_parse_table_350 :: table_row where
  "ts_parse_table_350 = [
     (sym__bool_literal, STATE 989), (sym__numeric_literal, STATE 989),
     (sym__literal, STATE 962), (sym_symbol_literal, STATE 989), (sym_true, STATE 900),
     (sym_false, STATE 900), (sym_string_literal, STATE 989),
     (sym__string_literal_double_quotes, STATE 627),
     (sym__string_literal_single_quotes, STATE 627),
     (sym__string_literal_double_quotes_multiple, STATE 627),
     (sym__string_literal_single_quotes_multiple, STATE 627),
     (sym__raw_string_literal_double_quotes, STATE 627),
     (sym__raw_string_literal_single_quotes, STATE 627),
     (sym__raw_string_literal_double_quotes_multiple, STATE 627),
     (sym__raw_string_literal_single_quotes_multiple, STATE 627), (sym_list_literal, STATE 989),
     (sym_set_or_map_literal, STATE 989), (sym_null_literal, STATE 989),
     (sym_record_literal, STATE 989), (sym__record_literal_no_const, STATE 924),
     (sym__real_expression, STATE 500), (sym_assignable_expression, STATE 3070),
     (sym_function_expression, STATE 962), (sym_if_null_expression, STATE 996),
     (sym_conditional_expression, STATE 996), (sym_logical_or_expression, STATE 996),
     (sym_logical_and_expression, STATE 996), (sym_equality_expression, STATE 996),
     (sym_type_cast_expression, STATE 996), (sym_type_test_expression, STATE 996),
     (sym_relational_expression, STATE 996), (sym_bitwise_or_expression, STATE 996),
     (sym_bitwise_xor_expression, STATE 996), (sym_bitwise_and_expression, STATE 996),
     (sym_shift_expression, STATE 996), (sym_additive_expression, STATE 996),
     (sym_multiplicative_expression, STATE 996), (sym__unary_expression, STATE 787),
     (sym_unary_expression, STATE 994), (sym__postfix_expression, STATE 994),
     (sym_postfix_expression, STATE 993), (sym_prefix_operator, STATE 421),
     (sym_negation_operator, STATE 1450), (sym__exclamation_operator, STATE 1451),
     (sym_tilde_operator, STATE 1357), (sym_await_expression, STATE 991),
     (sym_new_expression, STATE 962), (sym_const_object_expression, STATE 962),
     (sym__primary, STATE 659), (sym_parenthesized_expression, STATE 962),
     (sym_constructor_invocation, STATE 654), (sym_constructor_tearoff, STATE 962),
     (sym_type_arguments, STATE 3146), (sym_switch_expression, STATE 962),
     (sym_type_parameters, STATE 2932), (sym__type_name, STATE 2859),
     (sym__formal_parameter_part, STATE 2339), (sym_formal_parameter_list, STATE 2020),
     (sym__strict_formal_parameter_list, STATE 2016), (sym__new_builtin, STATE 2079),
     (sym_this, STATE 962), (sym_super, STATE 1340), (sym_comment, STATE 350),
     (sym_documentation_comment, STATE 350), (aux_sym_string_literal_repeat1, STATE 474),
     (sym_identifier, ACTIONS 844), (anon_sym_POUND, ACTIONS 73),
     (sym_decimal_integer_literal, ACTIONS 75), (sym_hex_integer_literal, ACTIONS 77),
     (sym_decimal_floating_point_literal, ACTIONS 75), (anon_sym_true, ACTIONS 79),
     (anon_sym_false, ACTIONS 81), (anon_sym_DQUOTE, ACTIONS 83), (anon_sym_SQUOTE, ACTIONS 85),
     (anon_sym_DQUOTE_DQUOTE_DQUOTE, ACTIONS 87), (anon_sym_SQUOTE_SQUOTE_SQUOTE, ACTIONS 89),
     (anon_sym_r_DQUOTE, ACTIONS 91), (anon_sym_r_SQUOTE, ACTIONS 93),
     (anon_sym_r_DQUOTE_DQUOTE_DQUOTE, ACTIONS 95),
     (anon_sym_r_SQUOTE_SQUOTE_SQUOTE, ACTIONS 97), (anon_sym_LBRACE, ACTIONS 766),
     (anon_sym_LBRACK, ACTIONS 768), (anon_sym_null, ACTIONS 105),
     (anon_sym_LPAREN, ACTIONS 770), (anon_sym_LT, ACTIONS 111),
     (sym_increment_operator, ACTIONS 688), (sym_minus_operator, ACTIONS 690),
     (anon_sym_BANG, ACTIONS 119), (anon_sym_TILDE, ACTIONS 121), (anon_sym_await, ACTIONS 692),
     (anon_sym_switch, ACTIONS 412), (anon_sym_new, ACTIONS 155),
     (sym_const_builtin, ACTIONS 478), (anon_sym_this, ACTIONS 159),
     (anon_sym_super, ACTIONS 161), (anon_sym_SLASH_SLASH, ACTIONS 3),
     (anon_sym_SLASH_STAR, ACTIONS 5), (anon_sym_SLASH_SLASH_SLASH, ACTIONS 7),
     (sym__block_comment, ACTIONS 9), (sym__documentation_block_comment, ACTIONS 11)]"

lemma row_ok_350: "table_row_ok 350 ts_parse_table_350"
  by (simp add: row_simps ts_parse_table_350_def)

definition ts_parse_table_351 :: table_row where
  "ts_parse_table_351 = [
     (sym__bool_literal, STATE 989), (sym__numeric_literal, STATE 989),
     (sym__literal, STATE 962), (sym_symbol_literal, STATE 989), (sym_true, STATE 900),
     (sym_false, STATE 900), (sym_string_literal, STATE 989),
     (sym__string_literal_double_quotes, STATE 627),
     (sym__string_literal_single_quotes, STATE 627),
     (sym__string_literal_double_quotes_multiple, STATE 627),
     (sym__string_literal_single_quotes_multiple, STATE 627),
     (sym__raw_string_literal_double_quotes, STATE 627),
     (sym__raw_string_literal_single_quotes, STATE 627),
     (sym__raw_string_literal_double_quotes_multiple, STATE 627),
     (sym__raw_string_literal_single_quotes_multiple, STATE 627), (sym_list_literal, STATE 989),
     (sym_set_or_map_literal, STATE 989), (sym_null_literal, STATE 989),
     (sym_record_literal, STATE 989), (sym__record_literal_no_const, STATE 924),
     (sym__real_expression, STATE 779), (sym_assignable_expression, STATE 3070),
     (sym_function_expression, STATE 962), (sym_if_null_expression, STATE 996),
     (sym_conditional_expression, STATE 996), (sym_logical_or_expression, STATE 996),
     (sym_logical_and_expression, STATE 996), (sym_equality_expression, STATE 996),
     (sym_type_cast_expression, STATE 996), (sym_type_test_expression, STATE 996),
     (sym_relational_expression, STATE 996), (sym_bitwise_or_expression, STATE 996),
     (sym_bitwise_xor_expression, STATE 996), (sym_bitwise_and_expression, STATE 996),
     (sym_shift_expression, STATE 996), (sym_additive_expression, STATE 996),
     (sym_multiplicative_expression, STATE 996), (sym__unary_expression, STATE 1323),
     (sym_unary_expression, STATE 994), (sym__postfix_expression, STATE 994),
     (sym_postfix_expression, STATE 993), (sym_prefix_operator, STATE 421),
     (sym_negation_operator, STATE 1450), (sym__exclamation_operator, STATE 1451),
     (sym_tilde_operator, STATE 1357), (sym_await_expression, STATE 991),
     (sym_new_expression, STATE 962), (sym_const_object_expression, STATE 962),
     (sym__primary, STATE 659), (sym_parenthesized_expression, STATE 962),
     (sym_constructor_invocation, STATE 654), (sym_constructor_tearoff, STATE 962),
     (sym_type_arguments, STATE 3146), (sym_switch_expression, STATE 962),
     (sym_type_parameters, STATE 2932), (sym__type_name, STATE 2859),
     (sym__formal_parameter_part, STATE 2339), (sym_formal_parameter_list, STATE 2020),
     (sym__strict_formal_parameter_list, STATE 2016), (sym__new_builtin, STATE 2079),
     (sym_this, STATE 962), (sym_super, STATE 1343), (sym_comment, STATE 351),
     (sym_documentation_comment, STATE 351), (aux_sym_string_literal_repeat1, STATE 474),
     (sym_identifier, ACTIONS 844), (anon_sym_POUND, ACTIONS 73),
     (sym_decimal_integer_literal, ACTIONS 75), (sym_hex_integer_literal, ACTIONS 77),
     (sym_decimal_floating_point_literal, ACTIONS 75), (anon_sym_true, ACTIONS 79),
     (anon_sym_false, ACTIONS 81), (anon_sym_DQUOTE, ACTIONS 83), (anon_sym_SQUOTE, ACTIONS 85),
     (anon_sym_DQUOTE_DQUOTE_DQUOTE, ACTIONS 87), (anon_sym_SQUOTE_SQUOTE_SQUOTE, ACTIONS 89),
     (anon_sym_r_DQUOTE, ACTIONS 91), (anon_sym_r_SQUOTE, ACTIONS 93),
     (anon_sym_r_DQUOTE_DQUOTE_DQUOTE, ACTIONS 95),
     (anon_sym_r_SQUOTE_SQUOTE_SQUOTE, ACTIONS 97), (anon_sym_LBRACE, ACTIONS 766),
     (anon_sym_LBRACK, ACTIONS 768), (anon_sym_null, ACTIONS 105),
     (anon_sym_LPAREN, ACTIONS 770), (anon_sym_LT, ACTIONS 111),
     (sym_increment_operator, ACTIONS 688), (sym_minus_operator, ACTIONS 690),
     (anon_sym_BANG, ACTIONS 119), (anon_sym_TILDE, ACTIONS 121), (anon_sym_await, ACTIONS 692),
     (anon_sym_switch, ACTIONS 412), (anon_sym_new, ACTIONS 155),
     (sym_const_builtin, ACTIONS 478), (anon_sym_this, ACTIONS 159),
     (anon_sym_super, ACTIONS 161), (anon_sym_SLASH_SLASH, ACTIONS 3),
     (anon_sym_SLASH_STAR, ACTIONS 5), (anon_sym_SLASH_SLASH_SLASH, ACTIONS 7),
     (sym__block_comment, ACTIONS 9), (sym__documentation_block_comment, ACTIONS 11)]"

lemma row_ok_351: "table_row_ok 351 ts_parse_table_351"
  by (simp add: row_simps ts_parse_table_351_def)

definition ts_parse_table_352 :: table_row where
  "ts_parse_table_352 = [
     (sym__bool_literal, STATE 1115), (sym__numeric_literal, STATE 1115),
     (sym__literal, STATE 1135), (sym_symbol_literal, STATE 1115), (sym_true, STATE 1165),
     (sym_false, STATE 1165), (sym_string_literal, STATE 1115),
     (sym__string_literal_double_quotes, STATE 729),
     (sym__string_literal_single_quotes, STATE 729),
     (sym__string_literal_double_quotes_multiple, STATE 729),
     (sym__string_literal_single_quotes_multiple, STATE 729),
     (sym__raw_string_literal_double_quotes, STATE 729),
     (sym__raw_string_literal_single_quotes, STATE 729),
     (sym__raw_string_literal_double_quotes_multiple, STATE 729),
     (sym__raw_string_literal_single_quotes_multiple, STATE 729), (sym_list_literal, STATE 1115),
     (sym_set_or_map_literal, STATE 1115), (sym_null_literal, STATE 1115),
     (sym_record_literal, STATE 1115), (sym__record_literal_no_const, STATE 1187),
     (sym__real_expression, STATE 723), (sym_assignable_expression, STATE 3194),
     (sym_function_expression, STATE 1135), (sym_if_null_expression, STATE 1609),
     (sym_conditional_expression, STATE 1609), (sym_logical_or_expression, STATE 1609),
     (sym_logical_and_expression, STATE 1609), (sym_equality_expression, STATE 1609),
     (sym_type_cast_expression, STATE 1609), (sym_type_test_expression, STATE 1609),
     (sym_relational_expression, STATE 1609), (sym_bitwise_or_expression, STATE 1609),
     (sym_bitwise_xor_expression, STATE 1609), (sym_bitwise_and_expression, STATE 1609),
     (sym_shift_expression, STATE 1609), (sym_additive_expression, STATE 1609),
     (sym_multiplicative_expression, STATE 1609), (sym__unary_expression, STATE 1260),
     (sym_unary_expression, STATE 1391), (sym__postfix_expression, STATE 1391),
     (sym_postfix_expression, STATE 1390), (sym_prefix_operator, STATE 432),
     (sym_negation_operator, STATE 1450), (sym__exclamation_operator, STATE 1451),
     (sym_tilde_operator, STATE 1394), (sym_await_expression, STATE 1389),
     (sym_new_expression, STATE 1135), (sym_const_object_expression, STATE 1135),
     (sym__primary, STATE 684), (sym_parenthesized_expression, STATE 1135),
     (sym_constructor_invocation, STATE 691), (sym_constructor_tearoff, STATE 1135),
     (sym_type_arguments, STATE 3081), (sym_switch_expression, STATE 1135),
     (sym_type_parameters, STATE 2932), (sym__type_name, STATE 2826),
     (sym__formal_parameter_part, STATE 2358), (sym_formal_parameter_list, STATE 2020),
     (sym__strict_formal_parameter_list, STATE 2016), (sym__new_builtin, STATE 2074),
     (sym_this, STATE 1135), (sym_super, STATE 1342), (sym_comment, STATE 352),
     (sym_documentation_comment, STATE 352), (aux_sym_string_literal_repeat1, STATE 595),
     (sym_identifier, ACTIONS 846), (anon_sym_POUND, ACTIONS 698),
     (sym_decimal_integer_literal, ACTIONS 700), (sym_hex_integer_literal, ACTIONS 702),
     (sym_decimal_floating_point_literal, ACTIONS 700), (anon_sym_true, ACTIONS 704),
     (anon_sym_false, ACTIONS 706), (anon_sym_DQUOTE, ACTIONS 708),
     (anon_sym_SQUOTE, ACTIONS 710), (anon_sym_DQUOTE_DQUOTE_DQUOTE, ACTIONS 712),
     (anon_sym_SQUOTE_SQUOTE_SQUOTE, ACTIONS 714), (anon_sym_r_DQUOTE, ACTIONS 716),
     (anon_sym_r_SQUOTE, ACTIONS 718), (anon_sym_r_DQUOTE_DQUOTE_DQUOTE, ACTIONS 720),
     (anon_sym_r_SQUOTE_SQUOTE_SQUOTE, ACTIONS 722), (anon_sym_LBRACE, ACTIONS 756),
     (anon_sym_LBRACK, ACTIONS 758), (anon_sym_null, ACTIONS 728),
     (anon_sym_LPAREN, ACTIONS 760), (anon_sym_LT, ACTIONS 111),
     (sym_increment_operator, ACTIONS 828), (sym_minus_operator, ACTIONS 830),
     (anon_sym_BANG, ACTIONS 119), (anon_sym_TILDE, ACTIONS 121), (anon_sym_await, ACTIONS 832),
     (anon_sym_switch, ACTIONS 740), (anon_sym_new, ACTIONS 155),
     (sym_const_builtin, ACTIONS 744), (anon_sym_this, ACTIONS 746),
     (anon_sym_super, ACTIONS 161), (anon_sym_SLASH_SLASH, ACTIONS 3),
     (anon_sym_SLASH_STAR, ACTIONS 5), (anon_sym_SLASH_SLASH_SLASH, ACTIONS 7),
     (sym__block_comment, ACTIONS 9), (sym__documentation_block_comment, ACTIONS 11)]"

lemma row_ok_352: "table_row_ok 352 ts_parse_table_352"
  by (simp add: row_simps ts_parse_table_352_def)

definition ts_parse_table_353 :: table_row where
  "ts_parse_table_353 = [
     (sym__bool_literal, STATE 989), (sym__numeric_literal, STATE 989),
     (sym__literal, STATE 962), (sym_symbol_literal, STATE 989), (sym_true, STATE 900),
     (sym_false, STATE 900), (sym_string_literal, STATE 989),
     (sym__string_literal_double_quotes, STATE 627),
     (sym__string_literal_single_quotes, STATE 627),
     (sym__string_literal_double_quotes_multiple, STATE 627),
     (sym__string_literal_single_quotes_multiple, STATE 627),
     (sym__raw_string_literal_double_quotes, STATE 627),
     (sym__raw_string_literal_single_quotes, STATE 627),
     (sym__raw_string_literal_double_quotes_multiple, STATE 627),
     (sym__raw_string_literal_single_quotes_multiple, STATE 627), (sym_list_literal, STATE 989),
     (sym_set_or_map_literal, STATE 989), (sym_null_literal, STATE 989),
     (sym_record_literal, STATE 989), (sym__record_literal_no_const, STATE 924),
     (sym__real_expression, STATE 790), (sym_assignable_expression, STATE 3122),
     (sym_function_expression, STATE 962), (sym_if_null_expression, STATE 1477),
     (sym_conditional_expression, STATE 1477), (sym_logical_or_expression, STATE 1477),
     (sym_logical_and_expression, STATE 1477), (sym_equality_expression, STATE 1477),
     (sym_type_cast_expression, STATE 1477), (sym_type_test_expression, STATE 1477),
     (sym_relational_expression, STATE 1477), (sym_bitwise_or_expression, STATE 1477),
     (sym_bitwise_xor_expression, STATE 1477), (sym_bitwise_and_expression, STATE 1477),
     (sym_shift_expression, STATE 1477), (sym_additive_expression, STATE 1477),
     (sym_multiplicative_expression, STATE 1477), (sym__unary_expression, STATE 1121),
     (sym_unary_expression, STATE 1303), (sym__postfix_expression, STATE 1303),
     (sym_postfix_expression, STATE 1301), (sym_prefix_operator, STATE 431),
     (sym_negation_operator, STATE 1450), (sym__exclamation_operator, STATE 1451),
     (sym_tilde_operator, STATE 1385), (sym_await_expression, STATE 1302),
     (sym_new_expression, STATE 962), (sym_const_object_expression, STATE 962),
     (sym__primary, STATE 674), (sym_parenthesized_expression, STATE 962),
     (sym_constructor_invocation, STATE 654), (sym_constructor_tearoff, STATE 962),
     (sym_type_arguments, STATE 3146), (sym_switch_expression, STATE 962),
     (sym_type_parameters, STATE 2932), (sym__type_name, STATE 2859),
     (sym__formal_parameter_part, STATE 2339), (sym_formal_parameter_list, STATE 2020),
     (sym__strict_formal_parameter_list, STATE 2016), (sym__new_builtin, STATE 2079),
     (sym_this, STATE 962), (sym_super, STATE 1322), (sym_comment, STATE 353),
     (sym_documentation_comment, STATE 353), (aux_sym_string_literal_repeat1, STATE 474),
     (sym_identifier, ACTIONS 844), (anon_sym_POUND, ACTIONS 73),
     (sym_decimal_integer_literal, ACTIONS 75), (sym_hex_integer_literal, ACTIONS 77),
     (sym_decimal_floating_point_literal, ACTIONS 75), (anon_sym_true, ACTIONS 79),
     (anon_sym_false, ACTIONS 81), (anon_sym_DQUOTE, ACTIONS 83), (anon_sym_SQUOTE, ACTIONS 85),
     (anon_sym_DQUOTE_DQUOTE_DQUOTE, ACTIONS 87), (anon_sym_SQUOTE_SQUOTE_SQUOTE, ACTIONS 89),
     (anon_sym_r_DQUOTE, ACTIONS 91), (anon_sym_r_SQUOTE, ACTIONS 93),
     (anon_sym_r_DQUOTE_DQUOTE_DQUOTE, ACTIONS 95),
     (anon_sym_r_SQUOTE_SQUOTE_SQUOTE, ACTIONS 97), (anon_sym_LBRACE, ACTIONS 766),
     (anon_sym_LBRACK, ACTIONS 768), (anon_sym_null, ACTIONS 105),
     (anon_sym_LPAREN, ACTIONS 770), (anon_sym_LT, ACTIONS 111),
     (sym_increment_operator, ACTIONS 113), (sym_minus_operator, ACTIONS 117),
     (anon_sym_BANG, ACTIONS 119), (anon_sym_TILDE, ACTIONS 121), (anon_sym_await, ACTIONS 432),
     (anon_sym_switch, ACTIONS 412), (anon_sym_new, ACTIONS 155),
     (sym_const_builtin, ACTIONS 478), (anon_sym_this, ACTIONS 159),
     (anon_sym_super, ACTIONS 161), (anon_sym_SLASH_SLASH, ACTIONS 3),
     (anon_sym_SLASH_STAR, ACTIONS 5), (anon_sym_SLASH_SLASH_SLASH, ACTIONS 7),
     (sym__block_comment, ACTIONS 9), (sym__documentation_block_comment, ACTIONS 11)]"

lemma row_ok_353: "table_row_ok 353 ts_parse_table_353"
  by (simp add: row_simps ts_parse_table_353_def)

definition ts_parse_table_354 :: table_row where
  "ts_parse_table_354 = [
     (sym__bool_literal, STATE 1115), (sym__numeric_literal, STATE 1115),
     (sym__literal, STATE 1135), (sym_symbol_literal, STATE 1115), (sym_true, STATE 1165),
     (sym_false, STATE 1165), (sym_string_literal, STATE 1115),
     (sym__string_literal_double_quotes, STATE 729),
     (sym__string_literal_single_quotes, STATE 729),
     (sym__string_literal_double_quotes_multiple, STATE 729),
     (sym__string_literal_single_quotes_multiple, STATE 729),
     (sym__raw_string_literal_double_quotes, STATE 729),
     (sym__raw_string_literal_single_quotes, STATE 729),
     (sym__raw_string_literal_double_quotes_multiple, STATE 729),
     (sym__raw_string_literal_single_quotes_multiple, STATE 729), (sym_list_literal, STATE 1115),
     (sym_set_or_map_literal, STATE 1115), (sym_null_literal, STATE 1115),
     (sym_record_literal, STATE 1115), (sym__record_literal_no_const, STATE 1187),
     (sym__real_expression, STATE 727), (sym_assignable_expression, STATE 3194),
     (sym_function_expression, STATE 1135), (sym_if_null_expression, STATE 1609),
     (sym_conditional_expression, STATE 1609), (sym_logical_or_expression, STATE 1609),
     (sym_logical_and_expression, STATE 1609), (sym_equality_expression, STATE 1609),
     (sym_type_cast_expression, STATE 1609), (sym_type_test_expression, STATE 1609),
     (sym_relational_expression, STATE 1609), (sym_bitwise_or_expression, STATE 1609),
     (sym_bitwise_xor_expression, STATE 1609), (sym_bitwise_and_expression, STATE 1609),
     (sym_shift_expression, STATE 1609), (sym_additive_expression, STATE 1609),
     (sym_multiplicative_expression, STATE 1609), (sym__unary_expression, STATE 1260),
     (sym_unary_expression, STATE 1391), (sym__postfix_expression, STATE 1391),
     (sym_postfix_expression, STATE 1390), (sym_prefix_operator, STATE 432),
     (sym_negation_operator, STATE 1450), (sym__exclamation_operator, STATE 1451),
     (sym_tilde_operator, STATE 1394), (sym_await_expression, STATE 1389),
     (sym_new_expression, STATE 1135), (sym_const_object_expression, STATE 1135),
     (sym__primary, STATE 684), (sym_parenthesized_expression, STATE 1135),
     (sym_constructor_invocation, STATE 691), (sym_constructor_tearoff, STATE 1135),
     (sym_type_arguments, STATE 3081), (sym_switch_expression, STATE 1135),
     (sym_type_parameters, STATE 2932), (sym__type_name, STATE 2826),
     (sym__formal_parameter_part, STATE 2358), (sym_formal_parameter_list, STATE 2020),
     (sym__strict_formal_parameter_list, STATE 2016), (sym__new_builtin, STATE 2074),
     (sym_this, STATE 1135), (sym_super, STATE 1342), (sym_comment, STATE 354),
     (sym_documentation_comment, STATE 354), (aux_sym_string_literal_repeat1, STATE 595),
     (sym_identifier, ACTIONS 846), (anon_sym_POUND, ACTIONS 698),
     (sym_decimal_integer_literal, ACTIONS 700), (sym_hex_integer_literal, ACTIONS 702),
     (sym_decimal_floating_point_literal, ACTIONS 700), (anon_sym_true, ACTIONS 704),
     (anon_sym_false, ACTIONS 706), (anon_sym_DQUOTE, ACTIONS 708),
     (anon_sym_SQUOTE, ACTIONS 710), (anon_sym_DQUOTE_DQUOTE_DQUOTE, ACTIONS 712),
     (anon_sym_SQUOTE_SQUOTE_SQUOTE, ACTIONS 714), (anon_sym_r_DQUOTE, ACTIONS 716),
     (anon_sym_r_SQUOTE, ACTIONS 718), (anon_sym_r_DQUOTE_DQUOTE_DQUOTE, ACTIONS 720),
     (anon_sym_r_SQUOTE_SQUOTE_SQUOTE, ACTIONS 722), (anon_sym_LBRACE, ACTIONS 756),
     (anon_sym_LBRACK, ACTIONS 758), (anon_sym_null, ACTIONS 728),
     (anon_sym_LPAREN, ACTIONS 760), (anon_sym_LT, ACTIONS 111),
     (sym_increment_operator, ACTIONS 828), (sym_minus_operator, ACTIONS 830),
     (anon_sym_BANG, ACTIONS 119), (anon_sym_TILDE, ACTIONS 121), (anon_sym_await, ACTIONS 832),
     (anon_sym_switch, ACTIONS 740), (anon_sym_new, ACTIONS 155),
     (sym_const_builtin, ACTIONS 744), (anon_sym_this, ACTIONS 746),
     (anon_sym_super, ACTIONS 161), (anon_sym_SLASH_SLASH, ACTIONS 3),
     (anon_sym_SLASH_STAR, ACTIONS 5), (anon_sym_SLASH_SLASH_SLASH, ACTIONS 7),
     (sym__block_comment, ACTIONS 9), (sym__documentation_block_comment, ACTIONS 11)]"

lemma row_ok_354: "table_row_ok 354 ts_parse_table_354"
  by (simp add: row_simps ts_parse_table_354_def)

definition ts_parse_table_355 :: table_row where
  "ts_parse_table_355 = [
     (sym__bool_literal, STATE 1115), (sym__numeric_literal, STATE 1115),
     (sym__literal, STATE 1135), (sym_symbol_literal, STATE 1115), (sym_true, STATE 1165),
     (sym_false, STATE 1165), (sym_string_literal, STATE 1115),
     (sym__string_literal_double_quotes, STATE 729),
     (sym__string_literal_single_quotes, STATE 729),
     (sym__string_literal_double_quotes_multiple, STATE 729),
     (sym__string_literal_single_quotes_multiple, STATE 729),
     (sym__raw_string_literal_double_quotes, STATE 729),
     (sym__raw_string_literal_single_quotes, STATE 729),
     (sym__raw_string_literal_double_quotes_multiple, STATE 729),
     (sym__raw_string_literal_single_quotes_multiple, STATE 729), (sym_list_literal, STATE 1115),
     (sym_set_or_map_literal, STATE 1115), (sym_null_literal, STATE 1115),
     (sym_record_literal, STATE 1115), (sym__record_literal_no_const, STATE 1187),
     (sym__real_expression, STATE 720), (sym_assignable_expression, STATE 3194),
     (sym_function_expression, STATE 1135), (sym_if_null_expression, STATE 1609),
     (sym_conditional_expression, STATE 1609), (sym_logical_or_expression, STATE 1609),
     (sym_logical_and_expression, STATE 1609), (sym_equality_expression, STATE 1609),
     (sym_type_cast_expression, STATE 1609), (sym_type_test_expression, STATE 1609),
     (sym_relational_expression, STATE 1609), (sym_bitwise_or_expression, STATE 1609),
     (sym_bitwise_xor_expression, STATE 1609), (sym_bitwise_and_expression, STATE 1609),
     (sym_shift_expression, STATE 1609), (sym_additive_expression, STATE 1609),
     (sym_multiplicative_expression, STATE 1609), (sym__unary_expression, STATE 1260),
     (sym_unary_expression, STATE 1391), (sym__postfix_expression, STATE 1391),
     (sym_postfix_expression, STATE 1390), (sym_prefix_operator, STATE 432),
     (sym_negation_operator, STATE 1450), (sym__exclamation_operator, STATE 1451),
     (sym_tilde_operator, STATE 1394), (sym_await_expression, STATE 1389),
     (sym_new_expression, STATE 1135), (sym_const_object_expression, STATE 1135),
     (sym__primary, STATE 684), (sym_parenthesized_expression, STATE 1135),
     (sym_constructor_invocation, STATE 691), (sym_constructor_tearoff, STATE 1135),
     (sym_type_arguments, STATE 3081), (sym_switch_expression, STATE 1135),
     (sym_type_parameters, STATE 2932), (sym__type_name, STATE 2826),
     (sym__formal_parameter_part, STATE 2358), (sym_formal_parameter_list, STATE 2020),
     (sym__strict_formal_parameter_list, STATE 2016), (sym__new_builtin, STATE 2074),
     (sym_this, STATE 1135), (sym_super, STATE 1342), (sym_comment, STATE 355),
     (sym_documentation_comment, STATE 355), (aux_sym_string_literal_repeat1, STATE 595),
     (sym_identifier, ACTIONS 846), (anon_sym_POUND, ACTIONS 698),
     (sym_decimal_integer_literal, ACTIONS 700), (sym_hex_integer_literal, ACTIONS 702),
     (sym_decimal_floating_point_literal, ACTIONS 700), (anon_sym_true, ACTIONS 704),
     (anon_sym_false, ACTIONS 706), (anon_sym_DQUOTE, ACTIONS 708),
     (anon_sym_SQUOTE, ACTIONS 710), (anon_sym_DQUOTE_DQUOTE_DQUOTE, ACTIONS 712),
     (anon_sym_SQUOTE_SQUOTE_SQUOTE, ACTIONS 714), (anon_sym_r_DQUOTE, ACTIONS 716),
     (anon_sym_r_SQUOTE, ACTIONS 718), (anon_sym_r_DQUOTE_DQUOTE_DQUOTE, ACTIONS 720),
     (anon_sym_r_SQUOTE_SQUOTE_SQUOTE, ACTIONS 722), (anon_sym_LBRACE, ACTIONS 756),
     (anon_sym_LBRACK, ACTIONS 758), (anon_sym_null, ACTIONS 728),
     (anon_sym_LPAREN, ACTIONS 760), (anon_sym_LT, ACTIONS 111),
     (sym_increment_operator, ACTIONS 828), (sym_minus_operator, ACTIONS 830),
     (anon_sym_BANG, ACTIONS 119), (anon_sym_TILDE, ACTIONS 121), (anon_sym_await, ACTIONS 832),
     (anon_sym_switch, ACTIONS 740), (anon_sym_new, ACTIONS 155),
     (sym_const_builtin, ACTIONS 744), (anon_sym_this, ACTIONS 746),
     (anon_sym_super, ACTIONS 161), (anon_sym_SLASH_SLASH, ACTIONS 3),
     (anon_sym_SLASH_STAR, ACTIONS 5), (anon_sym_SLASH_SLASH_SLASH, ACTIONS 7),
     (sym__block_comment, ACTIONS 9), (sym__documentation_block_comment, ACTIONS 11)]"

lemma row_ok_355: "table_row_ok 355 ts_parse_table_355"
  by (simp add: row_simps ts_parse_table_355_def)

definition ts_parse_table_356 :: table_row where
  "ts_parse_table_356 = [
     (sym__bool_literal, STATE 1279), (sym__numeric_literal, STATE 1279),
     (sym__literal, STATE 1278), (sym_symbol_literal, STATE 1279), (sym_true, STATE 1275),
     (sym_false, STATE 1275), (sym_string_literal, STATE 1279),
     (sym__string_literal_double_quotes, STATE 799),
     (sym__string_literal_single_quotes, STATE 799),
     (sym__string_literal_double_quotes_multiple, STATE 799),
     (sym__string_literal_single_quotes_multiple, STATE 799),
     (sym__raw_string_literal_double_quotes, STATE 799),
     (sym__raw_string_literal_single_quotes, STATE 799),
     (sym__raw_string_literal_double_quotes_multiple, STATE 799),
     (sym__raw_string_literal_single_quotes_multiple, STATE 799), (sym_list_literal, STATE 1279),
     (sym_set_or_map_literal, STATE 1279), (sym_null_literal, STATE 1279),
     (sym_record_literal, STATE 1279), (sym__record_literal_no_const, STATE 1268),
     (sym__real_expression, STATE 753), (sym_assignable_expression, STATE 3162),
     (sym_function_expression, STATE 1278), (sym_if_null_expression, STATE 1679),
     (sym_conditional_expression, STATE 1679), (sym_logical_or_expression, STATE 1679),
     (sym_logical_and_expression, STATE 1679), (sym_equality_expression, STATE 1679),
     (sym_type_cast_expression, STATE 1679), (sym_type_test_expression, STATE 1679),
     (sym_relational_expression, STATE 1679), (sym_bitwise_or_expression, STATE 1679),
     (sym_bitwise_xor_expression, STATE 1679), (sym_bitwise_and_expression, STATE 1679),
     (sym_shift_expression, STATE 1679), (sym_additive_expression, STATE 1679),
     (sym_multiplicative_expression, STATE 1679), (sym__unary_expression, STATE 1329),
     (sym_unary_expression, STATE 1480), (sym__postfix_expression, STATE 1480),
     (sym_postfix_expression, STATE 1481), (sym_prefix_operator, STATE 428),
     (sym_negation_operator, STATE 1450), (sym__exclamation_operator, STATE 1451),
     (sym_tilde_operator, STATE 1387), (sym_await_expression, STATE 1483),
     (sym_new_expression, STATE 1278), (sym_const_object_expression, STATE 1278),
     (sym__primary, STATE 719), (sym_parenthesized_expression, STATE 1278),
     (sym_constructor_invocation, STATE 728), (sym_constructor_tearoff, STATE 1278),
     (sym_type_arguments, STATE 3100), (sym_switch_expression, STATE 1278),
     (sym_type_parameters, STATE 2932), (sym__type_name, STATE 2949),
     (sym__formal_parameter_part, STATE 2342), (sym_formal_parameter_list, STATE 2020),
     (sym__strict_formal_parameter_list, STATE 2016), (sym__new_builtin, STATE 2091),
     (sym_this, STATE 1278), (sym_super, STATE 1347), (sym_comment, STATE 356),
     (sym_documentation_comment, STATE 356), (aux_sym_string_literal_repeat1, STATE 609),
     (sym_identifier, ACTIONS 842), (anon_sym_POUND, ACTIONS 776),
     (sym_decimal_integer_literal, ACTIONS 778), (sym_hex_integer_literal, ACTIONS 780),
     (sym_decimal_floating_point_literal, ACTIONS 778), (anon_sym_true, ACTIONS 782),
     (anon_sym_false, ACTIONS 784), (anon_sym_DQUOTE, ACTIONS 786),
     (anon_sym_SQUOTE, ACTIONS 788), (anon_sym_DQUOTE_DQUOTE_DQUOTE, ACTIONS 790),
     (anon_sym_SQUOTE_SQUOTE_SQUOTE, ACTIONS 792), (anon_sym_r_DQUOTE, ACTIONS 794),
     (anon_sym_r_SQUOTE, ACTIONS 796), (anon_sym_r_DQUOTE_DQUOTE_DQUOTE, ACTIONS 798),
     (anon_sym_r_SQUOTE_SQUOTE_SQUOTE, ACTIONS 800), (anon_sym_LBRACE, ACTIONS 802),
     (anon_sym_LBRACK, ACTIONS 804), (anon_sym_null, ACTIONS 806),
     (anon_sym_LPAREN, ACTIONS 808), (anon_sym_LT, ACTIONS 111),
     (sym_increment_operator, ACTIONS 812), (sym_minus_operator, ACTIONS 814),
     (anon_sym_BANG, ACTIONS 119), (anon_sym_TILDE, ACTIONS 121), (anon_sym_await, ACTIONS 816),
     (anon_sym_switch, ACTIONS 818), (anon_sym_new, ACTIONS 155),
     (sym_const_builtin, ACTIONS 820), (anon_sym_this, ACTIONS 822),
     (anon_sym_super, ACTIONS 161), (anon_sym_SLASH_SLASH, ACTIONS 3),
     (anon_sym_SLASH_STAR, ACTIONS 5), (anon_sym_SLASH_SLASH_SLASH, ACTIONS 7),
     (sym__block_comment, ACTIONS 9), (sym__documentation_block_comment, ACTIONS 11)]"

lemma row_ok_356: "table_row_ok 356 ts_parse_table_356"
  by (simp add: row_simps ts_parse_table_356_def)

definition ts_parse_table_357 :: table_row where
  "ts_parse_table_357 = [
     (sym__bool_literal, STATE 1115), (sym__numeric_literal, STATE 1115),
     (sym__literal, STATE 1135), (sym_symbol_literal, STATE 1115), (sym_true, STATE 1165),
     (sym_false, STATE 1165), (sym_string_literal, STATE 1115),
     (sym__string_literal_double_quotes, STATE 729),
     (sym__string_literal_single_quotes, STATE 729),
     (sym__string_literal_double_quotes_multiple, STATE 729),
     (sym__string_literal_single_quotes_multiple, STATE 729),
     (sym__raw_string_literal_double_quotes, STATE 729),
     (sym__raw_string_literal_single_quotes, STATE 729),
     (sym__raw_string_literal_double_quotes_multiple, STATE 729),
     (sym__raw_string_literal_single_quotes_multiple, STATE 729), (sym_list_literal, STATE 1115),
     (sym_set_or_map_literal, STATE 1115), (sym_null_literal, STATE 1115),
     (sym_record_literal, STATE 1115), (sym__record_literal_no_const, STATE 1187),
     (sym__real_expression, STATE 713), (sym_assignable_expression, STATE 3194),
     (sym_function_expression, STATE 1135), (sym_if_null_expression, STATE 1609),
     (sym_conditional_expression, STATE 1609), (sym_logical_or_expression, STATE 1609),
     (sym_logical_and_expression, STATE 1609), (sym_equality_expression, STATE 1609),
     (sym_type_cast_expression, STATE 1609), (sym_type_test_expression, STATE 1609),
     (sym_relational_expression, STATE 1609), (sym_bitwise_or_expression, STATE 1609),
     (sym_bitwise_xor_expression, STATE 1609), (sym_bitwise_and_expression, STATE 1609),
     (sym_shift_expression, STATE 1609), (sym_additive_expression, STATE 1609),
     (sym_multiplicative_expression, STATE 1609), (sym__unary_expression, STATE 1260),
     (sym_unary_expression, STATE 1391), (sym__postfix_expression, STATE 1391),
     (sym_postfix_expression, STATE 1390), (sym_prefix_operator, STATE 432),
     (sym_negation_operator, STATE 1450), (sym__exclamation_operator, STATE 1451),
     (sym_tilde_operator, STATE 1394), (sym_await_expression, STATE 1389),
     (sym_new_expression, STATE 1135), (sym_const_object_expression, STATE 1135),
     (sym__primary, STATE 684), (sym_parenthesized_expression, STATE 1135),
     (sym_constructor_invocation, STATE 691), (sym_constructor_tearoff, STATE 1135),
     (sym_type_arguments, STATE 3081), (sym_switch_expression, STATE 1135),
     (sym_type_parameters, STATE 2932), (sym__type_name, STATE 2826),
     (sym__formal_parameter_part, STATE 2358), (sym_formal_parameter_list, STATE 2020),
     (sym__strict_formal_parameter_list, STATE 2016), (sym__new_builtin, STATE 2074),
     (sym_this, STATE 1135), (sym_super, STATE 1342), (sym_comment, STATE 357),
     (sym_documentation_comment, STATE 357), (aux_sym_string_literal_repeat1, STATE 595),
     (sym_identifier, ACTIONS 846), (anon_sym_POUND, ACTIONS 698),
     (sym_decimal_integer_literal, ACTIONS 700), (sym_hex_integer_literal, ACTIONS 702),
     (sym_decimal_floating_point_literal, ACTIONS 700), (anon_sym_true, ACTIONS 704),
     (anon_sym_false, ACTIONS 706), (anon_sym_DQUOTE, ACTIONS 708),
     (anon_sym_SQUOTE, ACTIONS 710), (anon_sym_DQUOTE_DQUOTE_DQUOTE, ACTIONS 712),
     (anon_sym_SQUOTE_SQUOTE_SQUOTE, ACTIONS 714), (anon_sym_r_DQUOTE, ACTIONS 716),
     (anon_sym_r_SQUOTE, ACTIONS 718), (anon_sym_r_DQUOTE_DQUOTE_DQUOTE, ACTIONS 720),
     (anon_sym_r_SQUOTE_SQUOTE_SQUOTE, ACTIONS 722), (anon_sym_LBRACE, ACTIONS 756),
     (anon_sym_LBRACK, ACTIONS 758), (anon_sym_null, ACTIONS 728),
     (anon_sym_LPAREN, ACTIONS 760), (anon_sym_LT, ACTIONS 111),
     (sym_increment_operator, ACTIONS 828), (sym_minus_operator, ACTIONS 830),
     (anon_sym_BANG, ACTIONS 119), (anon_sym_TILDE, ACTIONS 121), (anon_sym_await, ACTIONS 832),
     (anon_sym_switch, ACTIONS 740), (anon_sym_new, ACTIONS 155),
     (sym_const_builtin, ACTIONS 744), (anon_sym_this, ACTIONS 746),
     (anon_sym_super, ACTIONS 161), (anon_sym_SLASH_SLASH, ACTIONS 3),
     (anon_sym_SLASH_STAR, ACTIONS 5), (anon_sym_SLASH_SLASH_SLASH, ACTIONS 7),
     (sym__block_comment, ACTIONS 9), (sym__documentation_block_comment, ACTIONS 11)]"

lemma row_ok_357: "table_row_ok 357 ts_parse_table_357"
  by (simp add: row_simps ts_parse_table_357_def)

definition ts_parse_table_358 :: table_row where
  "ts_parse_table_358 = [
     (sym__bool_literal, STATE 989), (sym__numeric_literal, STATE 989),
     (sym__literal, STATE 962), (sym_symbol_literal, STATE 989), (sym_true, STATE 900),
     (sym_false, STATE 900), (sym_string_literal, STATE 989),
     (sym__string_literal_double_quotes, STATE 627),
     (sym__string_literal_single_quotes, STATE 627),
     (sym__string_literal_double_quotes_multiple, STATE 627),
     (sym__string_literal_single_quotes_multiple, STATE 627),
     (sym__raw_string_literal_double_quotes, STATE 627),
     (sym__raw_string_literal_single_quotes, STATE 627),
     (sym__raw_string_literal_double_quotes_multiple, STATE 627),
     (sym__raw_string_literal_single_quotes_multiple, STATE 627), (sym_list_literal, STATE 989),
     (sym_set_or_map_literal, STATE 989), (sym_null_literal, STATE 989),
     (sym_record_literal, STATE 989), (sym__record_literal_no_const, STATE 924),
     (sym__real_expression, STATE 767), (sym_assignable_expression, STATE 3070),
     (sym_function_expression, STATE 962), (sym_if_null_expression, STATE 996),
     (sym_conditional_expression, STATE 996), (sym_logical_or_expression, STATE 996),
     (sym_logical_and_expression, STATE 996), (sym_equality_expression, STATE 996),
     (sym_type_cast_expression, STATE 996), (sym_type_test_expression, STATE 996),
     (sym_relational_expression, STATE 996), (sym_bitwise_or_expression, STATE 996),
     (sym_bitwise_xor_expression, STATE 996), (sym_bitwise_and_expression, STATE 996),
     (sym_shift_expression, STATE 996), (sym_additive_expression, STATE 996),
     (sym_multiplicative_expression, STATE 996), (sym__unary_expression, STATE 1323),
     (sym_unary_expression, STATE 994), (sym__postfix_expression, STATE 994),
     (sym_postfix_expression, STATE 993), (sym_prefix_operator, STATE 421),
     (sym_negation_operator, STATE 1450), (sym__exclamation_operator, STATE 1451),
     (sym_tilde_operator, STATE 1357), (sym_await_expression, STATE 991),
     (sym_new_expression, STATE 962), (sym_const_object_expression, STATE 962),
     (sym__primary, STATE 659), (sym_parenthesized_expression, STATE 962),
     (sym_constructor_invocation, STATE 654), (sym_constructor_tearoff, STATE 962),
     (sym_type_arguments, STATE 3146), (sym_switch_expression, STATE 962),
     (sym_type_parameters, STATE 2932), (sym__type_name, STATE 2859),
     (sym__formal_parameter_part, STATE 2339), (sym_formal_parameter_list, STATE 2020),
     (sym__strict_formal_parameter_list, STATE 2016), (sym__new_builtin, STATE 2079),
     (sym_this, STATE 962), (sym_super, STATE 1343), (sym_comment, STATE 358),
     (sym_documentation_comment, STATE 358), (aux_sym_string_literal_repeat1, STATE 474),
     (sym_identifier, ACTIONS 844), (anon_sym_POUND, ACTIONS 73),
     (sym_decimal_integer_literal, ACTIONS 75), (sym_hex_integer_literal, ACTIONS 77),
     (sym_decimal_floating_point_literal, ACTIONS 75), (anon_sym_true, ACTIONS 79),
     (anon_sym_false, ACTIONS 81), (anon_sym_DQUOTE, ACTIONS 83), (anon_sym_SQUOTE, ACTIONS 85),
     (anon_sym_DQUOTE_DQUOTE_DQUOTE, ACTIONS 87), (anon_sym_SQUOTE_SQUOTE_SQUOTE, ACTIONS 89),
     (anon_sym_r_DQUOTE, ACTIONS 91), (anon_sym_r_SQUOTE, ACTIONS 93),
     (anon_sym_r_DQUOTE_DQUOTE_DQUOTE, ACTIONS 95),
     (anon_sym_r_SQUOTE_SQUOTE_SQUOTE, ACTIONS 97), (anon_sym_LBRACE, ACTIONS 766),
     (anon_sym_LBRACK, ACTIONS 768), (anon_sym_null, ACTIONS 105),
     (anon_sym_LPAREN, ACTIONS 770), (anon_sym_LT, ACTIONS 111),
     (sym_increment_operator, ACTIONS 688), (sym_minus_operator, ACTIONS 690),
     (anon_sym_BANG, ACTIONS 119), (anon_sym_TILDE, ACTIONS 121), (anon_sym_await, ACTIONS 692),
     (anon_sym_switch, ACTIONS 412), (anon_sym_new, ACTIONS 155),
     (sym_const_builtin, ACTIONS 478), (anon_sym_this, ACTIONS 159),
     (anon_sym_super, ACTIONS 161), (anon_sym_SLASH_SLASH, ACTIONS 3),
     (anon_sym_SLASH_STAR, ACTIONS 5), (anon_sym_SLASH_SLASH_SLASH, ACTIONS 7),
     (sym__block_comment, ACTIONS 9), (sym__documentation_block_comment, ACTIONS 11)]"

lemma row_ok_358: "table_row_ok 358 ts_parse_table_358"
  by (simp add: row_simps ts_parse_table_358_def)

definition ts_parse_table_359 :: table_row where
  "ts_parse_table_359 = [
     (sym__bool_literal, STATE 989), (sym__numeric_literal, STATE 989),
     (sym__literal, STATE 962), (sym_symbol_literal, STATE 989), (sym_true, STATE 900),
     (sym_false, STATE 900), (sym_string_literal, STATE 989),
     (sym__string_literal_double_quotes, STATE 627),
     (sym__string_literal_single_quotes, STATE 627),
     (sym__string_literal_double_quotes_multiple, STATE 627),
     (sym__string_literal_single_quotes_multiple, STATE 627),
     (sym__raw_string_literal_double_quotes, STATE 627),
     (sym__raw_string_literal_single_quotes, STATE 627),
     (sym__raw_string_literal_double_quotes_multiple, STATE 627),
     (sym__raw_string_literal_single_quotes_multiple, STATE 627), (sym_list_literal, STATE 989),
     (sym_set_or_map_literal, STATE 989), (sym_null_literal, STATE 989),
     (sym_record_literal, STATE 989), (sym__record_literal_no_const, STATE 924),
     (sym__real_expression, STATE 772), (sym_assignable_expression, STATE 3070),
     (sym_function_expression, STATE 962), (sym_if_null_expression, STATE 996),
     (sym_conditional_expression, STATE 996), (sym_logical_or_expression, STATE 996),
     (sym_logical_and_expression, STATE 996), (sym_equality_expression, STATE 996),
     (sym_type_cast_expression, STATE 996), (sym_type_test_expression, STATE 996),
     (sym_relational_expression, STATE 996), (sym_bitwise_or_expression, STATE 996),
     (sym_bitwise_xor_expression, STATE 996), (sym_bitwise_and_expression, STATE 996),
     (sym_shift_expression, STATE 996), (sym_additive_expression, STATE 996),
     (sym_multiplicative_expression, STATE 996), (sym__unary_expression, STATE 1323),
     (sym_unary_expression, STATE 994), (sym__postfix_expression, STATE 994),
     (sym_postfix_expression, STATE 993), (sym_prefix_operator, STATE 421),
     (sym_negation_operator, STATE 1450), (sym__exclamation_operator, STATE 1451),
     (sym_tilde_operator, STATE 1357), (sym_await_expression, STATE 991),
     (sym_new_expression, STATE 962), (sym_const_object_expression, STATE 962),
     (sym__primary, STATE 659), (sym_parenthesized_expression, STATE 962),
     (sym_constructor_invocation, STATE 654), (sym_constructor_tearoff, STATE 962),
     (sym_type_arguments, STATE 3146), (sym_switch_expression, STATE 962),
     (sym_type_parameters, STATE 2932), (sym__type_name, STATE 2859),
     (sym__formal_parameter_part, STATE 2339), (sym_formal_parameter_list, STATE 2020),
     (sym__strict_formal_parameter_list, STATE 2016), (sym__new_builtin, STATE 2079),
     (sym_this, STATE 962), (sym_super, STATE 1343), (sym_comment, STATE 359),
     (sym_documentation_comment, STATE 359), (aux_sym_string_literal_repeat1, STATE 474),
     (sym_identifier, ACTIONS 844), (anon_sym_POUND, ACTIONS 73),
     (sym_decimal_integer_literal, ACTIONS 75), (sym_hex_integer_literal, ACTIONS 77),
     (sym_decimal_floating_point_literal, ACTIONS 75), (anon_sym_true, ACTIONS 79),
     (anon_sym_false, ACTIONS 81), (anon_sym_DQUOTE, ACTIONS 83), (anon_sym_SQUOTE, ACTIONS 85),
     (anon_sym_DQUOTE_DQUOTE_DQUOTE, ACTIONS 87), (anon_sym_SQUOTE_SQUOTE_SQUOTE, ACTIONS 89),
     (anon_sym_r_DQUOTE, ACTIONS 91), (anon_sym_r_SQUOTE, ACTIONS 93),
     (anon_sym_r_DQUOTE_DQUOTE_DQUOTE, ACTIONS 95),
     (anon_sym_r_SQUOTE_SQUOTE_SQUOTE, ACTIONS 97), (anon_sym_LBRACE, ACTIONS 766),
     (anon_sym_LBRACK, ACTIONS 768), (anon_sym_null, ACTIONS 105),
     (anon_sym_LPAREN, ACTIONS 770), (anon_sym_LT, ACTIONS 111),
     (sym_increment_operator, ACTIONS 688), (sym_minus_operator, ACTIONS 690),
     (anon_sym_BANG, ACTIONS 119), (anon_sym_TILDE, ACTIONS 121), (anon_sym_await, ACTIONS 692),
     (anon_sym_switch, ACTIONS 412), (anon_sym_new, ACTIONS 155),
     (sym_const_builtin, ACTIONS 478), (anon_sym_this, ACTIONS 159),
     (anon_sym_super, ACTIONS 161), (anon_sym_SLASH_SLASH, ACTIONS 3),
     (anon_sym_SLASH_STAR, ACTIONS 5), (anon_sym_SLASH_SLASH_SLASH, ACTIONS 7),
     (sym__block_comment, ACTIONS 9), (sym__documentation_block_comment, ACTIONS 11)]"

lemma row_ok_359: "table_row_ok 359 ts_parse_table_359"
  by (simp add: row_simps ts_parse_table_359_def)

definition ts_parse_table_360 :: table_row where
  "ts_parse_table_360 = [
     (sym__bool_literal, STATE 989), (sym__numeric_literal, STATE 989),
     (sym__literal, STATE 962), (sym_symbol_literal, STATE 989), (sym_true, STATE 900),
     (sym_false, STATE 900), (sym_string_literal, STATE 989),
     (sym__string_literal_double_quotes, STATE 627),
     (sym__string_literal_single_quotes, STATE 627),
     (sym__string_literal_double_quotes_multiple, STATE 627),
     (sym__string_literal_single_quotes_multiple, STATE 627),
     (sym__raw_string_literal_double_quotes, STATE 627),
     (sym__raw_string_literal_single_quotes, STATE 627),
     (sym__raw_string_literal_double_quotes_multiple, STATE 627),
     (sym__raw_string_literal_single_quotes_multiple, STATE 627), (sym_list_literal, STATE 989),
     (sym_set_or_map_literal, STATE 989), (sym_null_literal, STATE 989),
     (sym_record_literal, STATE 989), (sym__record_literal_no_const, STATE 924),
     (sym__real_expression, STATE 768), (sym_assignable_expression, STATE 3070),
     (sym_function_expression, STATE 962), (sym_if_null_expression, STATE 996),
     (sym_conditional_expression, STATE 996), (sym_logical_or_expression, STATE 996),
     (sym_logical_and_expression, STATE 996), (sym_equality_expression, STATE 996),
     (sym_type_cast_expression, STATE 996), (sym_type_test_expression, STATE 996),
     (sym_relational_expression, STATE 996), (sym_bitwise_or_expression, STATE 996),
     (sym_bitwise_xor_expression, STATE 996), (sym_bitwise_and_expression, STATE 996),
     (sym_shift_expression, STATE 996), (sym_additive_expression, STATE 996),
     (sym_multiplicative_expression, STATE 996), (sym__unary_expression, STATE 1323),
     (sym_unary_expression, STATE 994), (sym__postfix_expression, STATE 994),
     (sym_postfix_expression, STATE 993), (sym_prefix_operator, STATE 421),
     (sym_negation_operator, STATE 1450), (sym__exclamation_operator, STATE 1451),
     (sym_tilde_operator, STATE 1357), (sym_await_expression, STATE 991),
     (sym_new_expression, STATE 962), (sym_const_object_expression, STATE 962),
     (sym__primary, STATE 659), (sym_parenthesized_expression, STATE 962),
     (sym_constructor_invocation, STATE 654), (sym_constructor_tearoff, STATE 962),
     (sym_type_arguments, STATE 3146), (sym_switch_expression, STATE 962),
     (sym_type_parameters, STATE 2932), (sym__type_name, STATE 2859),
     (sym__formal_parameter_part, STATE 2339), (sym_formal_parameter_list, STATE 2020),
     (sym__strict_formal_parameter_list, STATE 2016), (sym__new_builtin, STATE 2079),
     (sym_this, STATE 962), (sym_super, STATE 1343), (sym_comment, STATE 360),
     (sym_documentation_comment, STATE 360), (aux_sym_string_literal_repeat1, STATE 474),
     (sym_identifier, ACTIONS 844), (anon_sym_POUND, ACTIONS 73),
     (sym_decimal_integer_literal, ACTIONS 75), (sym_hex_integer_literal, ACTIONS 77),
     (sym_decimal_floating_point_literal, ACTIONS 75), (anon_sym_true, ACTIONS 79),
     (anon_sym_false, ACTIONS 81), (anon_sym_DQUOTE, ACTIONS 83), (anon_sym_SQUOTE, ACTIONS 85),
     (anon_sym_DQUOTE_DQUOTE_DQUOTE, ACTIONS 87), (anon_sym_SQUOTE_SQUOTE_SQUOTE, ACTIONS 89),
     (anon_sym_r_DQUOTE, ACTIONS 91), (anon_sym_r_SQUOTE, ACTIONS 93),
     (anon_sym_r_DQUOTE_DQUOTE_DQUOTE, ACTIONS 95),
     (anon_sym_r_SQUOTE_SQUOTE_SQUOTE, ACTIONS 97), (anon_sym_LBRACE, ACTIONS 766),
     (anon_sym_LBRACK, ACTIONS 768), (anon_sym_null, ACTIONS 105),
     (anon_sym_LPAREN, ACTIONS 770), (anon_sym_LT, ACTIONS 111),
     (sym_increment_operator, ACTIONS 688), (sym_minus_operator, ACTIONS 690),
     (anon_sym_BANG, ACTIONS 119), (anon_sym_TILDE, ACTIONS 121), (anon_sym_await, ACTIONS 692),
     (anon_sym_switch, ACTIONS 412), (anon_sym_new, ACTIONS 155),
     (sym_const_builtin, ACTIONS 478), (anon_sym_this, ACTIONS 159),
     (anon_sym_super, ACTIONS 161), (anon_sym_SLASH_SLASH, ACTIONS 3),
     (anon_sym_SLASH_STAR, ACTIONS 5), (anon_sym_SLASH_SLASH_SLASH, ACTIONS 7),
     (sym__block_comment, ACTIONS 9), (sym__documentation_block_comment, ACTIONS 11)]"

lemma row_ok_360: "table_row_ok 360 ts_parse_table_360"
  by (simp add: row_simps ts_parse_table_360_def)

definition ts_parse_table_361 :: table_row where
  "ts_parse_table_361 = [
     (sym__bool_literal, STATE 1279), (sym__numeric_literal, STATE 1279),
     (sym__literal, STATE 1278), (sym_symbol_literal, STATE 1279), (sym_true, STATE 1275),
     (sym_false, STATE 1275), (sym_string_literal, STATE 1279),
     (sym__string_literal_double_quotes, STATE 799),
     (sym__string_literal_single_quotes, STATE 799),
     (sym__string_literal_double_quotes_multiple, STATE 799),
     (sym__string_literal_single_quotes_multiple, STATE 799),
     (sym__raw_string_literal_double_quotes, STATE 799),
     (sym__raw_string_literal_single_quotes, STATE 799),
     (sym__raw_string_literal_double_quotes_multiple, STATE 799),
     (sym__raw_string_literal_single_quotes_multiple, STATE 799), (sym_list_literal, STATE 1279),
     (sym_set_or_map_literal, STATE 1279), (sym_null_literal, STATE 1279),
     (sym_record_literal, STATE 1279), (sym__record_literal_no_const, STATE 1268),
     (sym__real_expression, STATE 763), (sym_assignable_expression, STATE 3162),
     (sym_function_expression, STATE 1278), (sym_if_null_expression, STATE 1679),
     (sym_conditional_expression, STATE 1679), (sym_logical_or_expression, STATE 1679),
     (sym_logical_and_expression, STATE 1679), (sym_equality_expression, STATE 1679),
     (sym_type_cast_expression, STATE 1679), (sym_type_test_expression, STATE 1679),
     (sym_relational_expression, STATE 1679), (sym_bitwise_or_expression, STATE 1679),
     (sym_bitwise_xor_expression, STATE 1679), (sym_bitwise_and_expression, STATE 1679),
     (sym_shift_expression, STATE 1679), (sym_additive_expression, STATE 1679),
     (sym_multiplicative_expression, STATE 1679), (sym__unary_expression, STATE 1329),
     (sym_unary_expression, STATE 1480), (sym__postfix_expression, STATE 1480),
     (sym_postfix_expression, STATE 1481), (sym_prefix_operator, STATE 428),
     (sym_negation_operator, STATE 1450), (sym__exclamation_operator, STATE 1451),
     (sym_tilde_operator, STATE 1387), (sym_await_expression, STATE 1483),
     (sym_new_expression, STATE 1278), (sym_const_object_expression, STATE 1278),
     (sym__primary, STATE 719), (sym_parenthesized_expression, STATE 1278),
     (sym_constructor_invocation, STATE 728), (sym_constructor_tearoff, STATE 1278),
     (sym_type_arguments, STATE 3100), (sym_switch_expression, STATE 1278),
     (sym_type_parameters, STATE 2932), (sym__type_name, STATE 2949),
     (sym__formal_parameter_part, STATE 2342), (sym_formal_parameter_list, STATE 2020),
     (sym__strict_formal_parameter_list, STATE 2016), (sym__new_builtin, STATE 2091),
     (sym_this, STATE 1278), (sym_super, STATE 1347), (sym_comment, STATE 361),
     (sym_documentation_comment, STATE 361), (aux_sym_string_literal_repeat1, STATE 609),
     (sym_identifier, ACTIONS 842), (anon_sym_POUND, ACTIONS 776),
     (sym_decimal_integer_literal, ACTIONS 778), (sym_hex_integer_literal, ACTIONS 780),
     (sym_decimal_floating_point_literal, ACTIONS 778), (anon_sym_true, ACTIONS 782),
     (anon_sym_false, ACTIONS 784), (anon_sym_DQUOTE, ACTIONS 786),
     (anon_sym_SQUOTE, ACTIONS 788), (anon_sym_DQUOTE_DQUOTE_DQUOTE, ACTIONS 790),
     (anon_sym_SQUOTE_SQUOTE_SQUOTE, ACTIONS 792), (anon_sym_r_DQUOTE, ACTIONS 794),
     (anon_sym_r_SQUOTE, ACTIONS 796), (anon_sym_r_DQUOTE_DQUOTE_DQUOTE, ACTIONS 798),
     (anon_sym_r_SQUOTE_SQUOTE_SQUOTE, ACTIONS 800), (anon_sym_LBRACE, ACTIONS 802),
     (anon_sym_LBRACK, ACTIONS 804), (anon_sym_null, ACTIONS 806),
     (anon_sym_LPAREN, ACTIONS 808), (anon_sym_LT, ACTIONS 111),
     (sym_increment_operator, ACTIONS 812), (sym_minus_operator, ACTIONS 814),
     (anon_sym_BANG, ACTIONS 119), (anon_sym_TILDE, ACTIONS 121), (anon_sym_await, ACTIONS 816),
     (anon_sym_switch, ACTIONS 818), (anon_sym_new, ACTIONS 155),
     (sym_const_builtin, ACTIONS 820), (anon_sym_this, ACTIONS 822),
     (anon_sym_super, ACTIONS 161), (anon_sym_SLASH_SLASH, ACTIONS 3),
     (anon_sym_SLASH_STAR, ACTIONS 5), (anon_sym_SLASH_SLASH_SLASH, ACTIONS 7),
     (sym__block_comment, ACTIONS 9), (sym__documentation_block_comment, ACTIONS 11)]"

lemma row_ok_361: "table_row_ok 361 ts_parse_table_361"
  by (simp add: row_simps ts_parse_table_361_def)

definition ts_parse_table_362 :: table_row where
  "ts_parse_table_362 = [
     (sym__bool_literal, STATE 1115), (sym__numeric_literal, STATE 1115),
     (sym__literal, STATE 1135), (sym_symbol_literal, STATE 1115), (sym_true, STATE 1165),
     (sym_false, STATE 1165), (sym_string_literal, STATE 1115),
     (sym__string_literal_double_quotes, STATE 729),
     (sym__string_literal_single_quotes, STATE 729),
     (sym__string_literal_double_quotes_multiple, STATE 729),
     (sym__string_literal_single_quotes_multiple, STATE 729),
     (sym__raw_string_literal_double_quotes, STATE 729),
     (sym__raw_string_literal_single_quotes, STATE 729),
     (sym__raw_string_literal_double_quotes_multiple, STATE 729),
     (sym__raw_string_literal_single_quotes_multiple, STATE 729), (sym_list_literal, STATE 1115),
     (sym_set_or_map_literal, STATE 1115), (sym_null_literal, STATE 1115),
     (sym_record_literal, STATE 1115), (sym__record_literal_no_const, STATE 1187),
     (sym__real_expression, STATE 702), (sym_assignable_expression, STATE 3194),
     (sym_function_expression, STATE 1135), (sym_if_null_expression, STATE 1609),
     (sym_conditional_expression, STATE 1609), (sym_logical_or_expression, STATE 1609),
     (sym_logical_and_expression, STATE 1609), (sym_equality_expression, STATE 1609),
     (sym_type_cast_expression, STATE 1609), (sym_type_test_expression, STATE 1609),
     (sym_relational_expression, STATE 1609), (sym_bitwise_or_expression, STATE 1609),
     (sym_bitwise_xor_expression, STATE 1609), (sym_bitwise_and_expression, STATE 1609),
     (sym_shift_expression, STATE 1609), (sym_additive_expression, STATE 1609),
     (sym_multiplicative_expression, STATE 1609), (sym__unary_expression, STATE 1260),
     (sym_unary_expression, STATE 1391), (sym__postfix_expression, STATE 1391),
     (sym_postfix_expression, STATE 1390), (sym_prefix_operator, STATE 432),
     (sym_negation_operator, STATE 1450), (sym__exclamation_operator, STATE 1451),
     (sym_tilde_operator, STATE 1394), (sym_await_expression, STATE 1389),
     (sym_new_expression, STATE 1135), (sym_const_object_expression, STATE 1135),
     (sym__primary, STATE 684), (sym_parenthesized_expression, STATE 1135),
     (sym_constructor_invocation, STATE 691), (sym_constructor_tearoff, STATE 1135),
     (sym_type_arguments, STATE 3081), (sym_switch_expression, STATE 1135),
     (sym_type_parameters, STATE 2932), (sym__type_name, STATE 2826),
     (sym__formal_parameter_part, STATE 2358), (sym_formal_parameter_list, STATE 2020),
     (sym__strict_formal_parameter_list, STATE 2016), (sym__new_builtin, STATE 2074),
     (sym_this, STATE 1135), (sym_super, STATE 1342), (sym_comment, STATE 362),
     (sym_documentation_comment, STATE 362), (aux_sym_string_literal_repeat1, STATE 595),
     (sym_identifier, ACTIONS 846), (anon_sym_POUND, ACTIONS 698),
     (sym_decimal_integer_literal, ACTIONS 700), (sym_hex_integer_literal, ACTIONS 702),
     (sym_decimal_floating_point_literal, ACTIONS 700), (anon_sym_true, ACTIONS 704),
     (anon_sym_false, ACTIONS 706), (anon_sym_DQUOTE, ACTIONS 708),
     (anon_sym_SQUOTE, ACTIONS 710), (anon_sym_DQUOTE_DQUOTE_DQUOTE, ACTIONS 712),
     (anon_sym_SQUOTE_SQUOTE_SQUOTE, ACTIONS 714), (anon_sym_r_DQUOTE, ACTIONS 716),
     (anon_sym_r_SQUOTE, ACTIONS 718), (anon_sym_r_DQUOTE_DQUOTE_DQUOTE, ACTIONS 720),
     (anon_sym_r_SQUOTE_SQUOTE_SQUOTE, ACTIONS 722), (anon_sym_LBRACE, ACTIONS 756),
     (anon_sym_LBRACK, ACTIONS 758), (anon_sym_null, ACTIONS 728),
     (anon_sym_LPAREN, ACTIONS 760), (anon_sym_LT, ACTIONS 111),
     (sym_increment_operator, ACTIONS 828), (sym_minus_operator, ACTIONS 830),
     (anon_sym_BANG, ACTIONS 119), (anon_sym_TILDE, ACTIONS 121), (anon_sym_await, ACTIONS 832),
     (anon_sym_switch, ACTIONS 740), (anon_sym_new, ACTIONS 155),
     (sym_const_builtin, ACTIONS 744), (anon_sym_this, ACTIONS 746),
     (anon_sym_super, ACTIONS 161), (anon_sym_SLASH_SLASH, ACTIONS 3),
     (anon_sym_SLASH_STAR, ACTIONS 5), (anon_sym_SLASH_SLASH_SLASH, ACTIONS 7),
     (sym__block_comment, ACTIONS 9), (sym__documentation_block_comment, ACTIONS 11)]"

lemma row_ok_362: "table_row_ok 362 ts_parse_table_362"
  by (simp add: row_simps ts_parse_table_362_def)

definition ts_parse_table_363 :: table_row where
  "ts_parse_table_363 = [
     (sym__bool_literal, STATE 1115), (sym__numeric_literal, STATE 1115),
     (sym__literal, STATE 1135), (sym_symbol_literal, STATE 1115), (sym_true, STATE 1165),
     (sym_false, STATE 1165), (sym_string_literal, STATE 1115),
     (sym__string_literal_double_quotes, STATE 729),
     (sym__string_literal_single_quotes, STATE 729),
     (sym__string_literal_double_quotes_multiple, STATE 729),
     (sym__string_literal_single_quotes_multiple, STATE 729),
     (sym__raw_string_literal_double_quotes, STATE 729),
     (sym__raw_string_literal_single_quotes, STATE 729),
     (sym__raw_string_literal_double_quotes_multiple, STATE 729),
     (sym__raw_string_literal_single_quotes_multiple, STATE 729), (sym_list_literal, STATE 1115),
     (sym_set_or_map_literal, STATE 1115), (sym_null_literal, STATE 1115),
     (sym_record_literal, STATE 1115), (sym__record_literal_no_const, STATE 1187),
     (sym__real_expression, STATE 714), (sym_assignable_expression, STATE 3194),
     (sym_function_expression, STATE 1135), (sym_if_null_expression, STATE 1609),
     (sym_conditional_expression, STATE 1609), (sym_logical_or_expression, STATE 1609),
     (sym_logical_and_expression, STATE 1609), (sym_equality_expression, STATE 1609),
     (sym_type_cast_expression, STATE 1609), (sym_type_test_expression, STATE 1609),
     (sym_relational_expression, STATE 1609), (sym_bitwise_or_expression, STATE 1609),
     (sym_bitwise_xor_expression, STATE 1609), (sym_bitwise_and_expression, STATE 1609),
     (sym_shift_expression, STATE 1609), (sym_additive_expression, STATE 1609),
     (sym_multiplicative_expression, STATE 1609), (sym__unary_expression, STATE 1260),
     (sym_unary_expression, STATE 1391), (sym__postfix_expression, STATE 1391),
     (sym_postfix_expression, STATE 1390), (sym_prefix_operator, STATE 432),
     (sym_negation_operator, STATE 1450), (sym__exclamation_operator, STATE 1451),
     (sym_tilde_operator, STATE 1394), (sym_await_expression, STATE 1389),
     (sym_new_expression, STATE 1135), (sym_const_object_expression, STATE 1135),
     (sym__primary, STATE 684), (sym_parenthesized_expression, STATE 1135),
     (sym_constructor_invocation, STATE 691), (sym_constructor_tearoff, STATE 1135),
     (sym_type_arguments, STATE 3081), (sym_switch_expression, STATE 1135),
     (sym_type_parameters, STATE 2932), (sym__type_name, STATE 2826),
     (sym__formal_parameter_part, STATE 2358), (sym_formal_parameter_list, STATE 2020),
     (sym__strict_formal_parameter_list, STATE 2016), (sym__new_builtin, STATE 2074),
     (sym_this, STATE 1135), (sym_super, STATE 1342), (sym_comment, STATE 363),
     (sym_documentation_comment, STATE 363), (aux_sym_string_literal_repeat1, STATE 595),
     (sym_identifier, ACTIONS 846), (anon_sym_POUND, ACTIONS 698),
     (sym_decimal_integer_literal, ACTIONS 700), (sym_hex_integer_literal, ACTIONS 702),
     (sym_decimal_floating_point_literal, ACTIONS 700), (anon_sym_true, ACTIONS 704),
     (anon_sym_false, ACTIONS 706), (anon_sym_DQUOTE, ACTIONS 708),
     (anon_sym_SQUOTE, ACTIONS 710), (anon_sym_DQUOTE_DQUOTE_DQUOTE, ACTIONS 712),
     (anon_sym_SQUOTE_SQUOTE_SQUOTE, ACTIONS 714), (anon_sym_r_DQUOTE, ACTIONS 716),
     (anon_sym_r_SQUOTE, ACTIONS 718), (anon_sym_r_DQUOTE_DQUOTE_DQUOTE, ACTIONS 720),
     (anon_sym_r_SQUOTE_SQUOTE_SQUOTE, ACTIONS 722), (anon_sym_LBRACE, ACTIONS 756),
     (anon_sym_LBRACK, ACTIONS 758), (anon_sym_null, ACTIONS 728),
     (anon_sym_LPAREN, ACTIONS 760), (anon_sym_LT, ACTIONS 111),
     (sym_increment_operator, ACTIONS 828), (sym_minus_operator, ACTIONS 830),
     (anon_sym_BANG, ACTIONS 119), (anon_sym_TILDE, ACTIONS 121), (anon_sym_await, ACTIONS 832),
     (anon_sym_switch, ACTIONS 740), (anon_sym_new, ACTIONS 155),
     (sym_const_builtin, ACTIONS 744), (anon_sym_this, ACTIONS 746),
     (anon_sym_super, ACTIONS 161), (anon_sym_SLASH_SLASH, ACTIONS 3),
     (anon_sym_SLASH_STAR, ACTIONS 5), (anon_sym_SLASH_SLASH_SLASH, ACTIONS 7),
     (sym__block_comment, ACTIONS 9), (sym__documentation_block_comment, ACTIONS 11)]"

lemma row_ok_363: "table_row_ok 363 ts_parse_table_363"
  by (simp add: row_simps ts_parse_table_363_def)

definition ts_parse_table_364 :: table_row where
  "ts_parse_table_364 = [
     (sym__bool_literal, STATE 1115), (sym__numeric_literal, STATE 1115),
     (sym__literal, STATE 1135), (sym_symbol_literal, STATE 1115), (sym_true, STATE 1165),
     (sym_false, STATE 1165), (sym_string_literal, STATE 1115),
     (sym__string_literal_double_quotes, STATE 729),
     (sym__string_literal_single_quotes, STATE 729),
     (sym__string_literal_double_quotes_multiple, STATE 729),
     (sym__string_literal_single_quotes_multiple, STATE 729),
     (sym__raw_string_literal_double_quotes, STATE 729),
     (sym__raw_string_literal_single_quotes, STATE 729),
     (sym__raw_string_literal_double_quotes_multiple, STATE 729),
     (sym__raw_string_literal_single_quotes_multiple, STATE 729), (sym_list_literal, STATE 1115),
     (sym_set_or_map_literal, STATE 1115), (sym_null_literal, STATE 1115),
     (sym_record_literal, STATE 1115), (sym__record_literal_no_const, STATE 1187),
     (sym__real_expression, STATE 558), (sym_assignable_expression, STATE 3249),
     (sym_function_expression, STATE 1135), (sym_if_null_expression, STATE 1117),
     (sym_conditional_expression, STATE 1117), (sym_logical_or_expression, STATE 1117),
     (sym_logical_and_expression, STATE 1117), (sym_equality_expression, STATE 1117),
     (sym_type_cast_expression, STATE 1117), (sym_type_test_expression, STATE 1117),
     (sym_relational_expression, STATE 1117), (sym_bitwise_or_expression, STATE 1117),
     (sym_bitwise_xor_expression, STATE 1117), (sym_bitwise_and_expression, STATE 1117),
     (sym_shift_expression, STATE 1117), (sym_additive_expression, STATE 1117),
     (sym_multiplicative_expression, STATE 1117), (sym__unary_expression, STATE 902),
     (sym_unary_expression, STATE 1114), (sym__postfix_expression, STATE 1114),
     (sym_postfix_expression, STATE 1098), (sym_prefix_operator, STATE 417),
     (sym_negation_operator, STATE 1450), (sym__exclamation_operator, STATE 1451),
     (sym_tilde_operator, STATE 1359), (sym_await_expression, STATE 1093),
     (sym_new_expression, STATE 1135), (sym_const_object_expression, STATE 1135),
     (sym__primary, STATE 701), (sym_parenthesized_expression, STATE 1135),
     (sym_constructor_invocation, STATE 691), (sym_constructor_tearoff, STATE 1135),
     (sym_type_arguments, STATE 3081), (sym_switch_expression, STATE 1135),
     (sym_type_parameters, STATE 2932), (sym__type_name, STATE 2826),
     (sym__formal_parameter_part, STATE 2358), (sym_formal_parameter_list, STATE 2020),
     (sym__strict_formal_parameter_list, STATE 2016), (sym__new_builtin, STATE 2074),
     (sym_this, STATE 1135), (sym_super, STATE 1346), (sym_comment, STATE 364),
     (sym_documentation_comment, STATE 364), (aux_sym_string_literal_repeat1, STATE 595),
     (sym_identifier, ACTIONS 846), (anon_sym_POUND, ACTIONS 698),
     (sym_decimal_integer_literal, ACTIONS 700), (sym_hex_integer_literal, ACTIONS 702),
     (sym_decimal_floating_point_literal, ACTIONS 700), (anon_sym_true, ACTIONS 704),
     (anon_sym_false, ACTIONS 706), (anon_sym_DQUOTE, ACTIONS 708),
     (anon_sym_SQUOTE, ACTIONS 710), (anon_sym_DQUOTE_DQUOTE_DQUOTE, ACTIONS 712),
     (anon_sym_SQUOTE_SQUOTE_SQUOTE, ACTIONS 714), (anon_sym_r_DQUOTE, ACTIONS 716),
     (anon_sym_r_SQUOTE, ACTIONS 718), (anon_sym_r_DQUOTE_DQUOTE_DQUOTE, ACTIONS 720),
     (anon_sym_r_SQUOTE_SQUOTE_SQUOTE, ACTIONS 722), (anon_sym_LBRACE, ACTIONS 756),
     (anon_sym_LBRACK, ACTIONS 758), (anon_sym_null, ACTIONS 728),
     (anon_sym_LPAREN, ACTIONS 760), (anon_sym_LT, ACTIONS 111),
     (sym_increment_operator, ACTIONS 734), (sym_minus_operator, ACTIONS 736),
     (anon_sym_BANG, ACTIONS 119), (anon_sym_TILDE, ACTIONS 121), (anon_sym_await, ACTIONS 738),
     (anon_sym_switch, ACTIONS 740), (anon_sym_new, ACTIONS 155),
     (sym_const_builtin, ACTIONS 744), (anon_sym_this, ACTIONS 746),
     (anon_sym_super, ACTIONS 161), (anon_sym_SLASH_SLASH, ACTIONS 3),
     (anon_sym_SLASH_STAR, ACTIONS 5), (anon_sym_SLASH_SLASH_SLASH, ACTIONS 7),
     (sym__block_comment, ACTIONS 9), (sym__documentation_block_comment, ACTIONS 11)]"

lemma row_ok_364: "table_row_ok 364 ts_parse_table_364"
  by (simp add: row_simps ts_parse_table_364_def)

definition ts_parse_table_365 :: table_row where
  "ts_parse_table_365 = [
     (sym__bool_literal, STATE 989), (sym__numeric_literal, STATE 989),
     (sym__literal, STATE 962), (sym_symbol_literal, STATE 989), (sym_true, STATE 900),
     (sym_false, STATE 900), (sym_string_literal, STATE 989),
     (sym__string_literal_double_quotes, STATE 627),
     (sym__string_literal_single_quotes, STATE 627),
     (sym__string_literal_double_quotes_multiple, STATE 627),
     (sym__string_literal_single_quotes_multiple, STATE 627),
     (sym__raw_string_literal_double_quotes, STATE 627),
     (sym__raw_string_literal_single_quotes, STATE 627),
     (sym__raw_string_literal_double_quotes_multiple, STATE 627),
     (sym__raw_string_literal_single_quotes_multiple, STATE 627), (sym_list_literal, STATE 989),
     (sym_set_or_map_literal, STATE 989), (sym_null_literal, STATE 989),
     (sym_record_literal, STATE 989), (sym__record_literal_no_const, STATE 924),
     (sym__real_expression, STATE 504), (sym_assignable_expression, STATE 3070),
     (sym_function_expression, STATE 962), (sym_if_null_expression, STATE 996),
     (sym_conditional_expression, STATE 996), (sym_logical_or_expression, STATE 996),
     (sym_logical_and_expression, STATE 996), (sym_equality_expression, STATE 996),
     (sym_type_cast_expression, STATE 996), (sym_type_test_expression, STATE 996),
     (sym_relational_expression, STATE 996), (sym_bitwise_or_expression, STATE 996),
     (sym_bitwise_xor_expression, STATE 996), (sym_bitwise_and_expression, STATE 996),
     (sym_shift_expression, STATE 996), (sym_additive_expression, STATE 996),
     (sym_multiplicative_expression, STATE 996), (sym__unary_expression, STATE 787),
     (sym_unary_expression, STATE 994), (sym__postfix_expression, STATE 994),
     (sym_postfix_expression, STATE 993), (sym_prefix_operator, STATE 421),
     (sym_negation_operator, STATE 1450), (sym__exclamation_operator, STATE 1451),
     (sym_tilde_operator, STATE 1357), (sym_await_expression, STATE 991),
     (sym_new_expression, STATE 962), (sym_const_object_expression, STATE 962),
     (sym__primary, STATE 659), (sym_parenthesized_expression, STATE 962),
     (sym_constructor_invocation, STATE 654), (sym_constructor_tearoff, STATE 962),
     (sym_type_arguments, STATE 3146), (sym_switch_expression, STATE 962),
     (sym_type_parameters, STATE 2932), (sym__type_name, STATE 2859),
     (sym__formal_parameter_part, STATE 2339), (sym_formal_parameter_list, STATE 2020),
     (sym__strict_formal_parameter_list, STATE 2016), (sym__new_builtin, STATE 2079),
     (sym_this, STATE 962), (sym_super, STATE 1340), (sym_comment, STATE 365),
     (sym_documentation_comment, STATE 365), (aux_sym_string_literal_repeat1, STATE 474),
     (sym_identifier, ACTIONS 844), (anon_sym_POUND, ACTIONS 73),
     (sym_decimal_integer_literal, ACTIONS 75), (sym_hex_integer_literal, ACTIONS 77),
     (sym_decimal_floating_point_literal, ACTIONS 75), (anon_sym_true, ACTIONS 79),
     (anon_sym_false, ACTIONS 81), (anon_sym_DQUOTE, ACTIONS 83), (anon_sym_SQUOTE, ACTIONS 85),
     (anon_sym_DQUOTE_DQUOTE_DQUOTE, ACTIONS 87), (anon_sym_SQUOTE_SQUOTE_SQUOTE, ACTIONS 89),
     (anon_sym_r_DQUOTE, ACTIONS 91), (anon_sym_r_SQUOTE, ACTIONS 93),
     (anon_sym_r_DQUOTE_DQUOTE_DQUOTE, ACTIONS 95),
     (anon_sym_r_SQUOTE_SQUOTE_SQUOTE, ACTIONS 97), (anon_sym_LBRACE, ACTIONS 766),
     (anon_sym_LBRACK, ACTIONS 768), (anon_sym_null, ACTIONS 105),
     (anon_sym_LPAREN, ACTIONS 770), (anon_sym_LT, ACTIONS 111),
     (sym_increment_operator, ACTIONS 688), (sym_minus_operator, ACTIONS 690),
     (anon_sym_BANG, ACTIONS 119), (anon_sym_TILDE, ACTIONS 121), (anon_sym_await, ACTIONS 692),
     (anon_sym_switch, ACTIONS 412), (anon_sym_new, ACTIONS 155),
     (sym_const_builtin, ACTIONS 478), (anon_sym_this, ACTIONS 159),
     (anon_sym_super, ACTIONS 161), (anon_sym_SLASH_SLASH, ACTIONS 3),
     (anon_sym_SLASH_STAR, ACTIONS 5), (anon_sym_SLASH_SLASH_SLASH, ACTIONS 7),
     (sym__block_comment, ACTIONS 9), (sym__documentation_block_comment, ACTIONS 11)]"

lemma row_ok_365: "table_row_ok 365 ts_parse_table_365"
  by (simp add: row_simps ts_parse_table_365_def)

definition ts_parse_table_366 :: table_row where
  "ts_parse_table_366 = [
     (sym__bool_literal, STATE 989), (sym__numeric_literal, STATE 989),
     (sym__literal, STATE 962), (sym_symbol_literal, STATE 989), (sym_true, STATE 900),
     (sym_false, STATE 900), (sym_string_literal, STATE 989),
     (sym__string_literal_double_quotes, STATE 627),
     (sym__string_literal_single_quotes, STATE 627),
     (sym__string_literal_double_quotes_multiple, STATE 627),
     (sym__string_literal_single_quotes_multiple, STATE 627),
     (sym__raw_string_literal_double_quotes, STATE 627),
     (sym__raw_string_literal_single_quotes, STATE 627),
     (sym__raw_string_literal_double_quotes_multiple, STATE 627),
     (sym__raw_string_literal_single_quotes_multiple, STATE 627), (sym_list_literal, STATE 989),
     (sym_set_or_map_literal, STATE 989), (sym_null_literal, STATE 989),
     (sym_record_literal, STATE 989), (sym__record_literal_no_const, STATE 924),
     (sym__real_expression, STATE 507), (sym_assignable_expression, STATE 3070),
     (sym_function_expression, STATE 962), (sym_if_null_expression, STATE 996),
     (sym_conditional_expression, STATE 996), (sym_logical_or_expression, STATE 996),
     (sym_logical_and_expression, STATE 996), (sym_equality_expression, STATE 996),
     (sym_type_cast_expression, STATE 996), (sym_type_test_expression, STATE 996),
     (sym_relational_expression, STATE 996), (sym_bitwise_or_expression, STATE 996),
     (sym_bitwise_xor_expression, STATE 996), (sym_bitwise_and_expression, STATE 996),
     (sym_shift_expression, STATE 996), (sym_additive_expression, STATE 996),
     (sym_multiplicative_expression, STATE 996), (sym__unary_expression, STATE 787),
     (sym_unary_expression, STATE 994), (sym__postfix_expression, STATE 994),
     (sym_postfix_expression, STATE 993), (sym_prefix_operator, STATE 421),
     (sym_negation_operator, STATE 1450), (sym__exclamation_operator, STATE 1451),
     (sym_tilde_operator, STATE 1357), (sym_await_expression, STATE 991),
     (sym_new_expression, STATE 962), (sym_const_object_expression, STATE 962),
     (sym__primary, STATE 659), (sym_parenthesized_expression, STATE 962),
     (sym_constructor_invocation, STATE 654), (sym_constructor_tearoff, STATE 962),
     (sym_type_arguments, STATE 3146), (sym_switch_expression, STATE 962),
     (sym_type_parameters, STATE 2932), (sym__type_name, STATE 2859),
     (sym__formal_parameter_part, STATE 2339), (sym_formal_parameter_list, STATE 2020),
     (sym__strict_formal_parameter_list, STATE 2016), (sym__new_builtin, STATE 2079),
     (sym_this, STATE 962), (sym_super, STATE 1340), (sym_comment, STATE 366),
     (sym_documentation_comment, STATE 366), (aux_sym_string_literal_repeat1, STATE 474),
     (sym_identifier, ACTIONS 844), (anon_sym_POUND, ACTIONS 73),
     (sym_decimal_integer_literal, ACTIONS 75), (sym_hex_integer_literal, ACTIONS 77),
     (sym_decimal_floating_point_literal, ACTIONS 75), (anon_sym_true, ACTIONS 79),
     (anon_sym_false, ACTIONS 81), (anon_sym_DQUOTE, ACTIONS 83), (anon_sym_SQUOTE, ACTIONS 85),
     (anon_sym_DQUOTE_DQUOTE_DQUOTE, ACTIONS 87), (anon_sym_SQUOTE_SQUOTE_SQUOTE, ACTIONS 89),
     (anon_sym_r_DQUOTE, ACTIONS 91), (anon_sym_r_SQUOTE, ACTIONS 93),
     (anon_sym_r_DQUOTE_DQUOTE_DQUOTE, ACTIONS 95),
     (anon_sym_r_SQUOTE_SQUOTE_SQUOTE, ACTIONS 97), (anon_sym_LBRACE, ACTIONS 766),
     (anon_sym_LBRACK, ACTIONS 768), (anon_sym_null, ACTIONS 105),
     (anon_sym_LPAREN, ACTIONS 770), (anon_sym_LT, ACTIONS 111),
     (sym_increment_operator, ACTIONS 688), (sym_minus_operator, ACTIONS 690),
     (anon_sym_BANG, ACTIONS 119), (anon_sym_TILDE, ACTIONS 121), (anon_sym_await, ACTIONS 692),
     (anon_sym_switch, ACTIONS 412), (anon_sym_new, ACTIONS 155),
     (sym_const_builtin, ACTIONS 478), (anon_sym_this, ACTIONS 159),
     (anon_sym_super, ACTIONS 161), (anon_sym_SLASH_SLASH, ACTIONS 3),
     (anon_sym_SLASH_STAR, ACTIONS 5), (anon_sym_SLASH_SLASH_SLASH, ACTIONS 7),
     (sym__block_comment, ACTIONS 9), (sym__documentation_block_comment, ACTIONS 11)]"

lemma row_ok_366: "table_row_ok 366 ts_parse_table_366"
  by (simp add: row_simps ts_parse_table_366_def)

definition ts_parse_table_367 :: table_row where
  "ts_parse_table_367 = [
     (sym__bool_literal, STATE 1115), (sym__numeric_literal, STATE 1115),
     (sym__literal, STATE 1135), (sym_symbol_literal, STATE 1115), (sym_true, STATE 1165),
     (sym_false, STATE 1165), (sym_string_literal, STATE 1115),
     (sym__string_literal_double_quotes, STATE 729),
     (sym__string_literal_single_quotes, STATE 729),
     (sym__string_literal_double_quotes_multiple, STATE 729),
     (sym__string_literal_single_quotes_multiple, STATE 729),
     (sym__raw_string_literal_double_quotes, STATE 729),
     (sym__raw_string_literal_single_quotes, STATE 729),
     (sym__raw_string_literal_double_quotes_multiple, STATE 729),
     (sym__raw_string_literal_single_quotes_multiple, STATE 729), (sym_list_literal, STATE 1115),
     (sym_set_or_map_literal, STATE 1115), (sym_null_literal, STATE 1115),
     (sym_record_literal, STATE 1115), (sym__record_literal_no_const, STATE 1187),
     (sym__real_expression, STATE 715), (sym_assignable_expression, STATE 3194),
     (sym_function_expression, STATE 1135), (sym_if_null_expression, STATE 1609),
     (sym_conditional_expression, STATE 1609), (sym_logical_or_expression, STATE 1609),
     (sym_logical_and_expression, STATE 1609), (sym_equality_expression, STATE 1609),
     (sym_type_cast_expression, STATE 1609), (sym_type_test_expression, STATE 1609),
     (sym_relational_expression, STATE 1609), (sym_bitwise_or_expression, STATE 1609),
     (sym_bitwise_xor_expression, STATE 1609), (sym_bitwise_and_expression, STATE 1609),
     (sym_shift_expression, STATE 1609), (sym_additive_expression, STATE 1609),
     (sym_multiplicative_expression, STATE 1609), (sym__unary_expression, STATE 1260),
     (sym_unary_expression, STATE 1391), (sym__postfix_expression, STATE 1391),
     (sym_postfix_expression, STATE 1390), (sym_prefix_operator, STATE 432),
     (sym_negation_operator, STATE 1450), (sym__exclamation_operator, STATE 1451),
     (sym_tilde_operator, STATE 1394), (sym_await_expression, STATE 1389),
     (sym_new_expression, STATE 1135), (sym_const_object_expression, STATE 1135),
     (sym__primary, STATE 684), (sym_parenthesized_expression, STATE 1135),
     (sym_constructor_invocation, STATE 691), (sym_constructor_tearoff, STATE 1135),
     (sym_type_arguments, STATE 3081), (sym_switch_expression, STATE 1135),
     (sym_type_parameters, STATE 2932), (sym__type_name, STATE 2826),
     (sym__formal_parameter_part, STATE 2358), (sym_formal_parameter_list, STATE 2020),
     (sym__strict_formal_parameter_list, STATE 2016), (sym__new_builtin, STATE 2074),
     (sym_this, STATE 1135), (sym_super, STATE 1342), (sym_comment, STATE 367),
     (sym_documentation_comment, STATE 367), (aux_sym_string_literal_repeat1, STATE 595),
     (sym_identifier, ACTIONS 846), (anon_sym_POUND, ACTIONS 698),
     (sym_decimal_integer_literal, ACTIONS 700), (sym_hex_integer_literal, ACTIONS 702),
     (sym_decimal_floating_point_literal, ACTIONS 700), (anon_sym_true, ACTIONS 704),
     (anon_sym_false, ACTIONS 706), (anon_sym_DQUOTE, ACTIONS 708),
     (anon_sym_SQUOTE, ACTIONS 710), (anon_sym_DQUOTE_DQUOTE_DQUOTE, ACTIONS 712),
     (anon_sym_SQUOTE_SQUOTE_SQUOTE, ACTIONS 714), (anon_sym_r_DQUOTE, ACTIONS 716),
     (anon_sym_r_SQUOTE, ACTIONS 718), (anon_sym_r_DQUOTE_DQUOTE_DQUOTE, ACTIONS 720),
     (anon_sym_r_SQUOTE_SQUOTE_SQUOTE, ACTIONS 722), (anon_sym_LBRACE, ACTIONS 756),
     (anon_sym_LBRACK, ACTIONS 758), (anon_sym_null, ACTIONS 728),
     (anon_sym_LPAREN, ACTIONS 760), (anon_sym_LT, ACTIONS 111),
     (sym_increment_operator, ACTIONS 828), (sym_minus_operator, ACTIONS 830),
     (anon_sym_BANG, ACTIONS 119), (anon_sym_TILDE, ACTIONS 121), (anon_sym_await, ACTIONS 832),
     (anon_sym_switch, ACTIONS 740), (anon_sym_new, ACTIONS 155),
     (sym_const_builtin, ACTIONS 744), (anon_sym_this, ACTIONS 746),
     (anon_sym_super, ACTIONS 161), (anon_sym_SLASH_SLASH, ACTIONS 3),
     (anon_sym_SLASH_STAR, ACTIONS 5), (anon_sym_SLASH_SLASH_SLASH, ACTIONS 7),
     (sym__block_comment, ACTIONS 9), (sym__documentation_block_comment, ACTIONS 11)]"

lemma row_ok_367: "table_row_ok 367 ts_parse_table_367"
  by (simp add: row_simps ts_parse_table_367_def)

definition ts_parse_table_368 :: table_row where
  "ts_parse_table_368 = [
     (sym__bool_literal, STATE 989), (sym__numeric_literal, STATE 989),
     (sym__literal, STATE 962), (sym_symbol_literal, STATE 989), (sym_true, STATE 900),
     (sym_false, STATE 900), (sym_string_literal, STATE 989),
     (sym__string_literal_double_quotes, STATE 627),
     (sym__string_literal_single_quotes, STATE 627),
     (sym__string_literal_double_quotes_multiple, STATE 627),
     (sym__string_literal_single_quotes_multiple, STATE 627),
     (sym__raw_string_literal_double_quotes, STATE 627),
     (sym__raw_string_literal_single_quotes, STATE 627),
     (sym__raw_string_literal_double_quotes_multiple, STATE 627),
     (sym__raw_string_literal_single_quotes_multiple, STATE 627), (sym_list_literal, STATE 989),
     (sym_set_or_map_literal, STATE 989), (sym_null_literal, STATE 989),
     (sym_record_literal, STATE 989), (sym__record_literal_no_const, STATE 924),
     (sym__real_expression, STATE 494), (sym_assignable_expression, STATE 3070),
     (sym_function_expression, STATE 962), (sym_if_null_expression, STATE 996),
     (sym_conditional_expression, STATE 996), (sym_logical_or_expression, STATE 996),
     (sym_logical_and_expression, STATE 996), (sym_equality_expression, STATE 996),
     (sym_type_cast_expression, STATE 996), (sym_type_test_expression, STATE 996),
     (sym_relational_expression, STATE 996), (sym_bitwise_or_expression, STATE 996),
     (sym_bitwise_xor_expression, STATE 996), (sym_bitwise_and_expression, STATE 996),
     (sym_shift_expression, STATE 996), (sym_additive_expression, STATE 996),
     (sym_multiplicative_expression, STATE 996), (sym__unary_expression, STATE 787),
     (sym_unary_expression, STATE 994), (sym__postfix_expression, STATE 994),
     (sym_postfix_expression, STATE 993), (sym_prefix_operator, STATE 421),
     (sym_negation_operator, STATE 1450), (sym__exclamation_operator, STATE 1451),
     (sym_tilde_operator, STATE 1357), (sym_await_expression, STATE 991),
     (sym_new_expression, STATE 962), (sym_const_object_expression, STATE 962),
     (sym__primary, STATE 659), (sym_parenthesized_expression, STATE 962),
     (sym_constructor_invocation, STATE 654), (sym_constructor_tearoff, STATE 962),
     (sym_type_arguments, STATE 3146), (sym_switch_expression, STATE 962),
     (sym_type_parameters, STATE 2932), (sym__type_name, STATE 2859),
     (sym__formal_parameter_part, STATE 2339), (sym_formal_parameter_list, STATE 2020),
     (sym__strict_formal_parameter_list, STATE 2016), (sym__new_builtin, STATE 2079),
     (sym_this, STATE 962), (sym_super, STATE 1340), (sym_comment, STATE 368),
     (sym_documentation_comment, STATE 368), (aux_sym_string_literal_repeat1, STATE 474),
     (sym_identifier, ACTIONS 844), (anon_sym_POUND, ACTIONS 73),
     (sym_decimal_integer_literal, ACTIONS 75), (sym_hex_integer_literal, ACTIONS 77),
     (sym_decimal_floating_point_literal, ACTIONS 75), (anon_sym_true, ACTIONS 79),
     (anon_sym_false, ACTIONS 81), (anon_sym_DQUOTE, ACTIONS 83), (anon_sym_SQUOTE, ACTIONS 85),
     (anon_sym_DQUOTE_DQUOTE_DQUOTE, ACTIONS 87), (anon_sym_SQUOTE_SQUOTE_SQUOTE, ACTIONS 89),
     (anon_sym_r_DQUOTE, ACTIONS 91), (anon_sym_r_SQUOTE, ACTIONS 93),
     (anon_sym_r_DQUOTE_DQUOTE_DQUOTE, ACTIONS 95),
     (anon_sym_r_SQUOTE_SQUOTE_SQUOTE, ACTIONS 97), (anon_sym_LBRACE, ACTIONS 766),
     (anon_sym_LBRACK, ACTIONS 768), (anon_sym_null, ACTIONS 105),
     (anon_sym_LPAREN, ACTIONS 770), (anon_sym_LT, ACTIONS 111),
     (sym_increment_operator, ACTIONS 688), (sym_minus_operator, ACTIONS 690),
     (anon_sym_BANG, ACTIONS 119), (anon_sym_TILDE, ACTIONS 121), (anon_sym_await, ACTIONS 692),
     (anon_sym_switch, ACTIONS 412), (anon_sym_new, ACTIONS 155),
     (sym_const_builtin, ACTIONS 478), (anon_sym_this, ACTIONS 159),
     (anon_sym_super, ACTIONS 161), (anon_sym_SLASH_SLASH, ACTIONS 3),
     (anon_sym_SLASH_STAR, ACTIONS 5), (anon_sym_SLASH_SLASH_SLASH, ACTIONS 7),
     (sym__block_comment, ACTIONS 9), (sym__documentation_block_comment, ACTIONS 11)]"

lemma row_ok_368: "table_row_ok 368 ts_parse_table_368"
  by (simp add: row_simps ts_parse_table_368_def)

definition ts_parse_table_369 :: table_row where
  "ts_parse_table_369 = [
     (sym__bool_literal, STATE 1279), (sym__numeric_literal, STATE 1279),
     (sym__literal, STATE 1278), (sym_symbol_literal, STATE 1279), (sym_true, STATE 1275),
     (sym_false, STATE 1275), (sym_string_literal, STATE 1279),
     (sym__string_literal_double_quotes, STATE 799),
     (sym__string_literal_single_quotes, STATE 799),
     (sym__string_literal_double_quotes_multiple, STATE 799),
     (sym__string_literal_single_quotes_multiple, STATE 799),
     (sym__raw_string_literal_double_quotes, STATE 799),
     (sym__raw_string_literal_single_quotes, STATE 799),
     (sym__raw_string_literal_double_quotes_multiple, STATE 799),
     (sym__raw_string_literal_single_quotes_multiple, STATE 799), (sym_list_literal, STATE 1279),
     (sym_set_or_map_literal, STATE 1279), (sym_null_literal, STATE 1279),
     (sym_record_literal, STATE 1279), (sym__record_literal_no_const, STATE 1268),
     (sym__real_expression, STATE 771), (sym_assignable_expression, STATE 3162),
     (sym_function_expression, STATE 1278), (sym_if_null_expression, STATE 1679),
     (sym_conditional_expression, STATE 1679), (sym_logical_or_expression, STATE 1679),
     (sym_logical_and_expression, STATE 1679), (sym_equality_expression, STATE 1679),
     (sym_type_cast_expression, STATE 1679), (sym_type_test_expression, STATE 1679),
     (sym_relational_expression, STATE 1679), (sym_bitwise_or_expression, STATE 1679),
     (sym_bitwise_xor_expression, STATE 1679), (sym_bitwise_and_expression, STATE 1679),
     (sym_shift_expression, STATE 1679), (sym_additive_expression, STATE 1679),
     (sym_multiplicative_expression, STATE 1679), (sym__unary_expression, STATE 1329),
     (sym_unary_expression, STATE 1480), (sym__postfix_expression, STATE 1480),
     (sym_postfix_expression, STATE 1481), (sym_prefix_operator, STATE 428),
     (sym_negation_operator, STATE 1450), (sym__exclamation_operator, STATE 1451),
     (sym_tilde_operator, STATE 1387), (sym_await_expression, STATE 1483),
     (sym_new_expression, STATE 1278), (sym_const_object_expression, STATE 1278),
     (sym__primary, STATE 719), (sym_parenthesized_expression, STATE 1278),
     (sym_constructor_invocation, STATE 728), (sym_constructor_tearoff, STATE 1278),
     (sym_type_arguments, STATE 3100), (sym_switch_expression, STATE 1278),
     (sym_type_parameters, STATE 2932), (sym__type_name, STATE 2949),
     (sym__formal_parameter_part, STATE 2342), (sym_formal_parameter_list, STATE 2020),
     (sym__strict_formal_parameter_list, STATE 2016), (sym__new_builtin, STATE 2091),
     (sym_this, STATE 1278), (sym_super, STATE 1347), (sym_comment, STATE 369),
     (sym_documentation_comment, STATE 369), (aux_sym_string_literal_repeat1, STATE 609),
     (sym_identifier, ACTIONS 842), (anon_sym_POUND, ACTIONS 776),
     (sym_decimal_integer_literal, ACTIONS 778), (sym_hex_integer_literal, ACTIONS 780),
     (sym_decimal_floating_point_literal, ACTIONS 778), (anon_sym_true, ACTIONS 782),
     (anon_sym_false, ACTIONS 784), (anon_sym_DQUOTE, ACTIONS 786),
     (anon_sym_SQUOTE, ACTIONS 788), (anon_sym_DQUOTE_DQUOTE_DQUOTE, ACTIONS 790),
     (anon_sym_SQUOTE_SQUOTE_SQUOTE, ACTIONS 792), (anon_sym_r_DQUOTE, ACTIONS 794),
     (anon_sym_r_SQUOTE, ACTIONS 796), (anon_sym_r_DQUOTE_DQUOTE_DQUOTE, ACTIONS 798),
     (anon_sym_r_SQUOTE_SQUOTE_SQUOTE, ACTIONS 800), (anon_sym_LBRACE, ACTIONS 802),
     (anon_sym_LBRACK, ACTIONS 804), (anon_sym_null, ACTIONS 806),
     (anon_sym_LPAREN, ACTIONS 808), (anon_sym_LT, ACTIONS 111),
     (sym_increment_operator, ACTIONS 812), (sym_minus_operator, ACTIONS 814),
     (anon_sym_BANG, ACTIONS 119), (anon_sym_TILDE, ACTIONS 121), (anon_sym_await, ACTIONS 816),
     (anon_sym_switch, ACTIONS 818), (anon_sym_new, ACTIONS 155),
     (sym_const_builtin, ACTIONS 820), (anon_sym_this, ACTIONS 822),
     (anon_sym_super, ACTIONS 161), (anon_sym_SLASH_SLASH, ACTIONS 3),
     (anon_sym_SLASH_STAR, ACTIONS 5), (anon_sym_SLASH_SLASH_SLASH, ACTIONS 7),
     (sym__block_comment, ACTIONS 9), (sym__documentation_block_comment, ACTIONS 11)]"

lemma row_ok_369: "table_row_ok 369 ts_parse_table_369"
  by (simp add: row_simps ts_parse_table_369_def)

definition ts_parse_table_370 :: table_row where
  "ts_parse_table_370 = [
     (sym__bool_literal, STATE 1115), (sym__numeric_literal, STATE 1115),
     (sym__literal, STATE 1135), (sym_symbol_literal, STATE 1115), (sym_true, STATE 1165),
     (sym_false, STATE 1165), (sym_string_literal, STATE 1115),
     (sym__string_literal_double_quotes, STATE 729),
     (sym__string_literal_single_quotes, STATE 729),
     (sym__string_literal_double_quotes_multiple, STATE 729),
     (sym__string_literal_single_quotes_multiple, STATE 729),
     (sym__raw_string_literal_double_quotes, STATE 729),
     (sym__raw_string_literal_single_quotes, STATE 729),
     (sym__raw_string_literal_double_quotes_multiple, STATE 729),
     (sym__raw_string_literal_single_quotes_multiple, STATE 729), (sym_list_literal, STATE 1115),
     (sym_set_or_map_literal, STATE 1115), (sym_null_literal, STATE 1115),
     (sym_record_literal, STATE 1115), (sym__record_literal_no_const, STATE 1187),
     (sym__real_expression, STATE 693), (sym_assignable_expression, STATE 3194),
     (sym_function_expression, STATE 1135), (sym_if_null_expression, STATE 1609),
     (sym_conditional_expression, STATE 1609), (sym_logical_or_expression, STATE 1609),
     (sym_logical_and_expression, STATE 1609), (sym_equality_expression, STATE 1609),
     (sym_type_cast_expression, STATE 1609), (sym_type_test_expression, STATE 1609),
     (sym_relational_expression, STATE 1609), (sym_bitwise_or_expression, STATE 1609),
     (sym_bitwise_xor_expression, STATE 1609), (sym_bitwise_and_expression, STATE 1609),
     (sym_shift_expression, STATE 1609), (sym_additive_expression, STATE 1609),
     (sym_multiplicative_expression, STATE 1609), (sym__unary_expression, STATE 1260),
     (sym_unary_expression, STATE 1391), (sym__postfix_expression, STATE 1391),
     (sym_postfix_expression, STATE 1390), (sym_prefix_operator, STATE 432),
     (sym_negation_operator, STATE 1450), (sym__exclamation_operator, STATE 1451),
     (sym_tilde_operator, STATE 1394), (sym_await_expression, STATE 1389),
     (sym_new_expression, STATE 1135), (sym_const_object_expression, STATE 1135),
     (sym__primary, STATE 684), (sym_parenthesized_expression, STATE 1135),
     (sym_constructor_invocation, STATE 691), (sym_constructor_tearoff, STATE 1135),
     (sym_type_arguments, STATE 3081), (sym_switch_expression, STATE 1135),
     (sym_type_parameters, STATE 2932), (sym__type_name, STATE 2826),
     (sym__formal_parameter_part, STATE 2358), (sym_formal_parameter_list, STATE 2020),
     (sym__strict_formal_parameter_list, STATE 2016), (sym__new_builtin, STATE 2074),
     (sym_this, STATE 1135), (sym_super, STATE 1342), (sym_comment, STATE 370),
     (sym_documentation_comment, STATE 370), (aux_sym_string_literal_repeat1, STATE 595),
     (sym_identifier, ACTIONS 846), (anon_sym_POUND, ACTIONS 698),
     (sym_decimal_integer_literal, ACTIONS 700), (sym_hex_integer_literal, ACTIONS 702),
     (sym_decimal_floating_point_literal, ACTIONS 700), (anon_sym_true, ACTIONS 704),
     (anon_sym_false, ACTIONS 706), (anon_sym_DQUOTE, ACTIONS 708),
     (anon_sym_SQUOTE, ACTIONS 710), (anon_sym_DQUOTE_DQUOTE_DQUOTE, ACTIONS 712),
     (anon_sym_SQUOTE_SQUOTE_SQUOTE, ACTIONS 714), (anon_sym_r_DQUOTE, ACTIONS 716),
     (anon_sym_r_SQUOTE, ACTIONS 718), (anon_sym_r_DQUOTE_DQUOTE_DQUOTE, ACTIONS 720),
     (anon_sym_r_SQUOTE_SQUOTE_SQUOTE, ACTIONS 722), (anon_sym_LBRACE, ACTIONS 756),
     (anon_sym_LBRACK, ACTIONS 758), (anon_sym_null, ACTIONS 728),
     (anon_sym_LPAREN, ACTIONS 760), (anon_sym_LT, ACTIONS 111),
     (sym_increment_operator, ACTIONS 828), (sym_minus_operator, ACTIONS 830),
     (anon_sym_BANG, ACTIONS 119), (anon_sym_TILDE, ACTIONS 121), (anon_sym_await, ACTIONS 832),
     (anon_sym_switch, ACTIONS 740), (anon_sym_new, ACTIONS 155),
     (sym_const_builtin, ACTIONS 744), (anon_sym_this, ACTIONS 746),
     (anon_sym_super, ACTIONS 161), (anon_sym_SLASH_SLASH, ACTIONS 3),
     (anon_sym_SLASH_STAR, ACTIONS 5), (anon_sym_SLASH_SLASH_SLASH, ACTIONS 7),
     (sym__block_comment, ACTIONS 9), (sym__documentation_block_comment, ACTIONS 11)]"

lemma row_ok_370: "table_row_ok 370 ts_parse_table_370"
  by (simp add: row_simps ts_parse_table_370_def)

definition ts_parse_table_371 :: table_row where
  "ts_parse_table_371 = [
     (sym__bool_literal, STATE 989), (sym__numeric_literal, STATE 989),
     (sym__literal, STATE 962), (sym_symbol_literal, STATE 989), (sym_true, STATE 900),
     (sym_false, STATE 900), (sym_string_literal, STATE 989),
     (sym__string_literal_double_quotes, STATE 627),
     (sym__string_literal_single_quotes, STATE 627),
     (sym__string_literal_double_quotes_multiple, STATE 627),
     (sym__string_literal_single_quotes_multiple, STATE 627),
     (sym__raw_string_literal_double_quotes, STATE 627),
     (sym__raw_string_literal_single_quotes, STATE 627),
     (sym__raw_string_literal_double_quotes_multiple, STATE 627),
     (sym__raw_string_literal_single_quotes_multiple, STATE 627), (sym_list_literal, STATE 989),
     (sym_set_or_map_literal, STATE 989), (sym_null_literal, STATE 989),
     (sym_record_literal, STATE 989), (sym__record_literal_no_const, STATE 924),
     (sym__real_expression, STATE 498), (sym_assignable_expression, STATE 3070),
     (sym_function_expression, STATE 962), (sym_if_null_expression, STATE 996),
     (sym_conditional_expression, STATE 996), (sym_logical_or_expression, STATE 996),
     (sym_logical_and_expression, STATE 996), (sym_equality_expression, STATE 996),
     (sym_type_cast_expression, STATE 996), (sym_type_test_expression, STATE 996),
     (sym_relational_expression, STATE 996), (sym_bitwise_or_expression, STATE 996),
     (sym_bitwise_xor_expression, STATE 996), (sym_bitwise_and_expression, STATE 996),
     (sym_shift_expression, STATE 996), (sym_additive_expression, STATE 996),
     (sym_multiplicative_expression, STATE 996), (sym__unary_expression, STATE 787),
     (sym_unary_expression, STATE 994), (sym__postfix_expression, STATE 994),
     (sym_postfix_expression, STATE 993), (sym_prefix_operator, STATE 421),
     (sym_negation_operator, STATE 1450), (sym__exclamation_operator, STATE 1451),
     (sym_tilde_operator, STATE 1357), (sym_await_expression, STATE 991),
     (sym_new_expression, STATE 962), (sym_const_object_expression, STATE 962),
     (sym__primary, STATE 659), (sym_parenthesized_expression, STATE 962),
     (sym_constructor_invocation, STATE 654), (sym_constructor_tearoff, STATE 962),
     (sym_type_arguments, STATE 3146), (sym_switch_expression, STATE 962),
     (sym_type_parameters, STATE 2932), (sym__type_name, STATE 2859),
     (sym__formal_parameter_part, STATE 2339), (sym_formal_parameter_list, STATE 2020),
     (sym__strict_formal_parameter_list, STATE 2016), (sym__new_builtin, STATE 2079),
     (sym_this, STATE 962), (sym_super, STATE 1340), (sym_comment, STATE 371),
     (sym_documentation_comment, STATE 371), (aux_sym_string_literal_repeat1, STATE 474),
     (sym_identifier, ACTIONS 844), (anon_sym_POUND, ACTIONS 73),
     (sym_decimal_integer_literal, ACTIONS 75), (sym_hex_integer_literal, ACTIONS 77),
     (sym_decimal_floating_point_literal, ACTIONS 75), (anon_sym_true, ACTIONS 79),
     (anon_sym_false, ACTIONS 81), (anon_sym_DQUOTE, ACTIONS 83), (anon_sym_SQUOTE, ACTIONS 85),
     (anon_sym_DQUOTE_DQUOTE_DQUOTE, ACTIONS 87), (anon_sym_SQUOTE_SQUOTE_SQUOTE, ACTIONS 89),
     (anon_sym_r_DQUOTE, ACTIONS 91), (anon_sym_r_SQUOTE, ACTIONS 93),
     (anon_sym_r_DQUOTE_DQUOTE_DQUOTE, ACTIONS 95),
     (anon_sym_r_SQUOTE_SQUOTE_SQUOTE, ACTIONS 97), (anon_sym_LBRACE, ACTIONS 766),
     (anon_sym_LBRACK, ACTIONS 768), (anon_sym_null, ACTIONS 105),
     (anon_sym_LPAREN, ACTIONS 770), (anon_sym_LT, ACTIONS 111),
     (sym_increment_operator, ACTIONS 688), (sym_minus_operator, ACTIONS 690),
     (anon_sym_BANG, ACTIONS 119), (anon_sym_TILDE, ACTIONS 121), (anon_sym_await, ACTIONS 692),
     (anon_sym_switch, ACTIONS 412), (anon_sym_new, ACTIONS 155),
     (sym_const_builtin, ACTIONS 478), (anon_sym_this, ACTIONS 159),
     (anon_sym_super, ACTIONS 161), (anon_sym_SLASH_SLASH, ACTIONS 3),
     (anon_sym_SLASH_STAR, ACTIONS 5), (anon_sym_SLASH_SLASH_SLASH, ACTIONS 7),
     (sym__block_comment, ACTIONS 9), (sym__documentation_block_comment, ACTIONS 11)]"

lemma row_ok_371: "table_row_ok 371 ts_parse_table_371"
  by (simp add: row_simps ts_parse_table_371_def)

definition ts_parse_table_372 :: table_row where
  "ts_parse_table_372 = [
     (sym__bool_literal, STATE 989), (sym__numeric_literal, STATE 989),
     (sym__literal, STATE 962), (sym_symbol_literal, STATE 989), (sym_true, STATE 900),
     (sym_false, STATE 900), (sym_string_literal, STATE 989),
     (sym__string_literal_double_quotes, STATE 627),
     (sym__string_literal_single_quotes, STATE 627),
     (sym__string_literal_double_quotes_multiple, STATE 627),
     (sym__string_literal_single_quotes_multiple, STATE 627),
     (sym__raw_string_literal_double_quotes, STATE 627),
     (sym__raw_string_literal_single_quotes, STATE 627),
     (sym__raw_string_literal_double_quotes_multiple, STATE 627),
     (sym__raw_string_literal_single_quotes_multiple, STATE 627), (sym_list_literal, STATE 989),
     (sym_set_or_map_literal, STATE 989), (sym_null_literal, STATE 989),
     (sym_record_literal, STATE 989), (sym__record_literal_no_const, STATE 924),
     (sym__real_expression, STATE 501), (sym_assignable_expression, STATE 3070),
     (sym_function_expression, STATE 962), (sym_if_null_expression, STATE 996),
     (sym_conditional_expression, STATE 996), (sym_logical_or_expression, STATE 996),
     (sym_logical_and_expression, STATE 996), (sym_equality_expression, STATE 996),
     (sym_type_cast_expression, STATE 996), (sym_type_test_expression, STATE 996),
     (sym_relational_expression, STATE 996), (sym_bitwise_or_expression, STATE 996),
     (sym_bitwise_xor_expression, STATE 996), (sym_bitwise_and_expression, STATE 996),
     (sym_shift_expression, STATE 996), (sym_additive_expression, STATE 996),
     (sym_multiplicative_expression, STATE 996), (sym__unary_expression, STATE 787),
     (sym_unary_expression, STATE 994), (sym__postfix_expression, STATE 994),
     (sym_postfix_expression, STATE 993), (sym_prefix_operator, STATE 421),
     (sym_negation_operator, STATE 1450), (sym__exclamation_operator, STATE 1451),
     (sym_tilde_operator, STATE 1357), (sym_await_expression, STATE 991),
     (sym_new_expression, STATE 962), (sym_const_object_expression, STATE 962),
     (sym__primary, STATE 659), (sym_parenthesized_expression, STATE 962),
     (sym_constructor_invocation, STATE 654), (sym_constructor_tearoff, STATE 962),
     (sym_type_arguments, STATE 3146), (sym_switch_expression, STATE 962),
     (sym_type_parameters, STATE 2932), (sym__type_name, STATE 2859),
     (sym__formal_parameter_part, STATE 2339), (sym_formal_parameter_list, STATE 2020),
     (sym__strict_formal_parameter_list, STATE 2016), (sym__new_builtin, STATE 2079),
     (sym_this, STATE 962), (sym_super, STATE 1340), (sym_comment, STATE 372),
     (sym_documentation_comment, STATE 372), (aux_sym_string_literal_repeat1, STATE 474),
     (sym_identifier, ACTIONS 844), (anon_sym_POUND, ACTIONS 73),
     (sym_decimal_integer_literal, ACTIONS 75), (sym_hex_integer_literal, ACTIONS 77),
     (sym_decimal_floating_point_literal, ACTIONS 75), (anon_sym_true, ACTIONS 79),
     (anon_sym_false, ACTIONS 81), (anon_sym_DQUOTE, ACTIONS 83), (anon_sym_SQUOTE, ACTIONS 85),
     (anon_sym_DQUOTE_DQUOTE_DQUOTE, ACTIONS 87), (anon_sym_SQUOTE_SQUOTE_SQUOTE, ACTIONS 89),
     (anon_sym_r_DQUOTE, ACTIONS 91), (anon_sym_r_SQUOTE, ACTIONS 93),
     (anon_sym_r_DQUOTE_DQUOTE_DQUOTE, ACTIONS 95),
     (anon_sym_r_SQUOTE_SQUOTE_SQUOTE, ACTIONS 97), (anon_sym_LBRACE, ACTIONS 766),
     (anon_sym_LBRACK, ACTIONS 768), (anon_sym_null, ACTIONS 105),
     (anon_sym_LPAREN, ACTIONS 770), (anon_sym_LT, ACTIONS 111),
     (sym_increment_operator, ACTIONS 688), (sym_minus_operator, ACTIONS 690),
     (anon_sym_BANG, ACTIONS 119), (anon_sym_TILDE, ACTIONS 121), (anon_sym_await, ACTIONS 692),
     (anon_sym_switch, ACTIONS 412), (anon_sym_new, ACTIONS 155),
     (sym_const_builtin, ACTIONS 478), (anon_sym_this, ACTIONS 159),
     (anon_sym_super, ACTIONS 161), (anon_sym_SLASH_SLASH, ACTIONS 3),
     (anon_sym_SLASH_STAR, ACTIONS 5), (anon_sym_SLASH_SLASH_SLASH, ACTIONS 7),
     (sym__block_comment, ACTIONS 9), (sym__documentation_block_comment, ACTIONS 11)]"

lemma row_ok_372: "table_row_ok 372 ts_parse_table_372"
  by (simp add: row_simps ts_parse_table_372_def)

definition ts_parse_table_373 :: table_row where
  "ts_parse_table_373 = [
     (sym__bool_literal, STATE 989), (sym__numeric_literal, STATE 989),
     (sym__literal, STATE 962), (sym_symbol_literal, STATE 989), (sym_true, STATE 900),
     (sym_false, STATE 900), (sym_string_literal, STATE 989),
     (sym__string_literal_double_quotes, STATE 627),
     (sym__string_literal_single_quotes, STATE 627),
     (sym__string_literal_double_quotes_multiple, STATE 627),
     (sym__string_literal_single_quotes_multiple, STATE 627),
     (sym__raw_string_literal_double_quotes, STATE 627),
     (sym__raw_string_literal_single_quotes, STATE 627),
     (sym__raw_string_literal_double_quotes_multiple, STATE 627),
     (sym__raw_string_literal_single_quotes_multiple, STATE 627), (sym_list_literal, STATE 989),
     (sym_set_or_map_literal, STATE 989), (sym_null_literal, STATE 989),
     (sym_record_literal, STATE 989), (sym__record_literal_no_const, STATE 924),
     (sym__real_expression, STATE 505), (sym_assignable_expression, STATE 3070),
     (sym_function_expression, STATE 962), (sym_if_null_expression, STATE 996),
     (sym_conditional_expression, STATE 996), (sym_logical_or_expression, STATE 996),
     (sym_logical_and_expression, STATE 996), (sym_equality_expression, STATE 996),
     (sym_type_cast_expression, STATE 996), (sym_type_test_expression, STATE 996),
     (sym_relational_expression, STATE 996), (sym_bitwise_or_expression, STATE 996),
     (sym_bitwise_xor_expression, STATE 996), (sym_bitwise_and_expression, STATE 996),
     (sym_shift_expression, STATE 996), (sym_additive_expression, STATE 996),
     (sym_multiplicative_expression, STATE 996), (sym__unary_expression, STATE 787),
     (sym_unary_expression, STATE 994), (sym__postfix_expression, STATE 994),
     (sym_postfix_expression, STATE 993), (sym_prefix_operator, STATE 421),
     (sym_negation_operator, STATE 1450), (sym__exclamation_operator, STATE 1451),
     (sym_tilde_operator, STATE 1357), (sym_await_expression, STATE 991),
     (sym_new_expression, STATE 962), (sym_const_object_expression, STATE 962),
     (sym__primary, STATE 659), (sym_parenthesized_expression, STATE 962),
     (sym_constructor_invocation, STATE 654), (sym_constructor_tearoff, STATE 962),
     (sym_type_arguments, STATE 3146), (sym_switch_expression, STATE 962),
     (sym_type_parameters, STATE 2932), (sym__type_name, STATE 2859),
     (sym__formal_parameter_part, STATE 2339), (sym_formal_parameter_list, STATE 2020),
     (sym__strict_formal_parameter_list, STATE 2016), (sym__new_builtin, STATE 2079),
     (sym_this, STATE 962), (sym_super, STATE 1340), (sym_comment, STATE 373),
     (sym_documentation_comment, STATE 373), (aux_sym_string_literal_repeat1, STATE 474),
     (sym_identifier, ACTIONS 844), (anon_sym_POUND, ACTIONS 73),
     (sym_decimal_integer_literal, ACTIONS 75), (sym_hex_integer_literal, ACTIONS 77),
     (sym_decimal_floating_point_literal, ACTIONS 75), (anon_sym_true, ACTIONS 79),
     (anon_sym_false, ACTIONS 81), (anon_sym_DQUOTE, ACTIONS 83), (anon_sym_SQUOTE, ACTIONS 85),
     (anon_sym_DQUOTE_DQUOTE_DQUOTE, ACTIONS 87), (anon_sym_SQUOTE_SQUOTE_SQUOTE, ACTIONS 89),
     (anon_sym_r_DQUOTE, ACTIONS 91), (anon_sym_r_SQUOTE, ACTIONS 93),
     (anon_sym_r_DQUOTE_DQUOTE_DQUOTE, ACTIONS 95),
     (anon_sym_r_SQUOTE_SQUOTE_SQUOTE, ACTIONS 97), (anon_sym_LBRACE, ACTIONS 766),
     (anon_sym_LBRACK, ACTIONS 768), (anon_sym_null, ACTIONS 105),
     (anon_sym_LPAREN, ACTIONS 770), (anon_sym_LT, ACTIONS 111),
     (sym_increment_operator, ACTIONS 688), (sym_minus_operator, ACTIONS 690),
     (anon_sym_BANG, ACTIONS 119), (anon_sym_TILDE, ACTIONS 121), (anon_sym_await, ACTIONS 692),
     (anon_sym_switch, ACTIONS 412), (anon_sym_new, ACTIONS 155),
     (sym_const_builtin, ACTIONS 478), (anon_sym_this, ACTIONS 159),
     (anon_sym_super, ACTIONS 161), (anon_sym_SLASH_SLASH, ACTIONS 3),
     (anon_sym_SLASH_STAR, ACTIONS 5), (anon_sym_SLASH_SLASH_SLASH, ACTIONS 7),
     (sym__block_comment, ACTIONS 9), (sym__documentation_block_comment, ACTIONS 11)]"

lemma row_ok_373: "table_row_ok 373 ts_parse_table_373"
  by (simp add: row_simps ts_parse_table_373_def)

definition ts_parse_table_374 :: table_row where
  "ts_parse_table_374 = [
     (sym__bool_literal, STATE 2124), (sym__numeric_literal, STATE 2124),
     (sym_symbol_literal, STATE 2124), (sym_true, STATE 2120), (sym_false, STATE 2120),
     (sym_string_literal, STATE 2124), (sym__string_literal_double_quotes, STATE 1854),
     (sym__string_literal_single_quotes, STATE 1854),
     (sym__string_literal_double_quotes_multiple, STATE 1854),
     (sym__string_literal_single_quotes_multiple, STATE 1854),
     (sym__raw_string_literal_double_quotes, STATE 1854),
     (sym__raw_string_literal_single_quotes, STATE 1854),
     (sym__raw_string_literal_double_quotes_multiple, STATE 1854),
     (sym__raw_string_literal_single_quotes_multiple, STATE 1854),
     (sym_null_literal, STATE 2124), (sym_relational_operator, STATE 345),
     (sym_const_object_expression, STATE 2124), (sym_type_arguments, STATE 3171),
     (sym_switch_expression_case, STATE 2681), (sym__guarded_pattern, STATE 3408),
     (sym__pattern, STATE 2666), (sym__logical_or_pattern, STATE 2373),
     (sym__logical_and_pattern, STATE 2152), (sym__relational_pattern, STATE 2147),
     (sym__unary_pattern, STATE 2230), (sym__primary_pattern, STATE 2129),
     (sym_cast_pattern, STATE 2231), (sym_null_check_pattern, STATE 2231),
     (sym_null_assert_pattern, STATE 2231), (sym_constant_pattern, STATE 2102),
     (sym_variable_pattern, STATE 2102), (sym__parenthesized_pattern, STATE 2102),
     (sym_list_pattern, STATE 2102), (sym_map_pattern, STATE 2102),
     (sym_record_pattern, STATE 2102), (sym_object_pattern, STATE 2102),
     (sym_switch_statement_case, STATE 2665), (sym_switch_statement_default, STATE 3420),
     (sym__type, STATE 3547), (sym__type_not_function, STATE 1796),
     (sym__type_not_void_not_function, STATE 1896), (sym_function_type, STATE 1848),
     (aux_sym__function_type_tails, STATE 1605), (sym__function_type_tail, STATE 1704),
     (sym_record_type, STATE 1805), (sym__type_name, STATE 2156),
     (sym__final_var_or_type, STATE 3469), (sym_inferred_type, STATE 3547),
     (sym_qualified, STATE 2124), (sym_case_builtin, STATE 409),
     (sym__function_builtin_identifier, STATE 1463), (sym_final_builtin, STATE 2100),
     (sym_label, STATE 2691), (sym_comment, STATE 374), (sym_documentation_comment, STATE 374),
     (aux_sym_string_literal_repeat1, STATE 1475), (aux_sym_switch_block_repeat1, STATE 2168),
     (aux_sym_switch_statement_case_repeat1, STATE 2476), (sym_identifier, ACTIONS 848),
     (anon_sym_POUND, ACTIONS 850), (sym_decimal_integer_literal, ACTIONS 852),
     (sym_hex_integer_literal, ACTIONS 854), (sym_decimal_floating_point_literal, ACTIONS 852),
     (anon_sym_true, ACTIONS 856), (anon_sym_false, ACTIONS 858), (anon_sym_DQUOTE, ACTIONS 860),
     (anon_sym_SQUOTE, ACTIONS 862), (anon_sym_DQUOTE_DQUOTE_DQUOTE, ACTIONS 864),
     (anon_sym_SQUOTE_SQUOTE_SQUOTE, ACTIONS 866), (anon_sym_r_DQUOTE, ACTIONS 868),
     (anon_sym_r_SQUOTE, ACTIONS 870), (anon_sym_r_DQUOTE_DQUOTE_DQUOTE, ACTIONS 872),
     (anon_sym_r_SQUOTE_SQUOTE_SQUOTE, ACTIONS 874), (anon_sym_LBRACE, ACTIONS 876),
     (anon_sym_RBRACE, ACTIONS 878), (anon_sym_LBRACK, ACTIONS 880),
     (anon_sym_null, ACTIONS 882), (anon_sym_LPAREN, ACTIONS 884),
     (sym_equality_operator, ACTIONS 396), (anon_sym_LT, ACTIONS 886),
     (anon_sym_GT, ACTIONS 400), (anon_sym_LT_EQ, ACTIONS 402), (anon_sym_GT_EQ, ACTIONS 402),
     (sym_minus_operator, ACTIONS 888), (anon_sym_default, ACTIONS 890),
     (anon_sym_case, ACTIONS 892), (anon_sym_final, ACTIONS 145), (sym_void_type, ACTIONS 33),
     (anon_sym_var, ACTIONS 35), (anon_sym_Function, ACTIONS 45),
     (sym_const_builtin, ACTIONS 894), (anon_sym_SLASH_SLASH, ACTIONS 3),
     (anon_sym_SLASH_STAR, ACTIONS 5), (anon_sym_SLASH_SLASH_SLASH, ACTIONS 7),
     (sym__block_comment, ACTIONS 9), (sym__documentation_block_comment, ACTIONS 11)]"

lemma row_ok_374: "table_row_ok 374 ts_parse_table_374"
  by (simp add: row_simps ts_parse_table_374_def)

definition ts_parse_table_375 :: table_row where
  "ts_parse_table_375 = [
     (sym__bool_literal, STATE 2124), (sym__numeric_literal, STATE 2124),
     (sym_symbol_literal, STATE 2124), (sym_true, STATE 2120), (sym_false, STATE 2120),
     (sym_string_literal, STATE 2124), (sym__string_literal_double_quotes, STATE 1854),
     (sym__string_literal_single_quotes, STATE 1854),
     (sym__string_literal_double_quotes_multiple, STATE 1854),
     (sym__string_literal_single_quotes_multiple, STATE 1854),
     (sym__raw_string_literal_double_quotes, STATE 1854),
     (sym__raw_string_literal_single_quotes, STATE 1854),
     (sym__raw_string_literal_double_quotes_multiple, STATE 1854),
     (sym__raw_string_literal_single_quotes_multiple, STATE 1854),
     (sym_null_literal, STATE 2124), (sym_relational_operator, STATE 345),
     (sym_const_object_expression, STATE 2124), (sym_type_arguments, STATE 3171),
     (sym__pattern, STATE 3257), (sym__logical_or_pattern, STATE 2373),
     (sym__logical_and_pattern, STATE 2152), (sym__relational_pattern, STATE 2147),
     (sym__unary_pattern, STATE 2230), (sym__primary_pattern, STATE 2129),
     (sym_cast_pattern, STATE 2231), (sym_null_check_pattern, STATE 2231),
     (sym_null_assert_pattern, STATE 2231), (sym_constant_pattern, STATE 2102),
     (sym_variable_pattern, STATE 2102), (sym__parenthesized_pattern, STATE 2102),
     (sym_list_pattern, STATE 2102), (sym_map_pattern, STATE 2102),
     (sym_record_pattern, STATE 2102), (sym_object_pattern, STATE 2102), (sym__type, STATE 3547),
     (sym__type_not_function, STATE 1796), (sym__type_not_void_not_function, STATE 1896),
     (sym_function_type, STATE 1848), (aux_sym__function_type_tails, STATE 1605),
     (sym__function_type_tail, STATE 1704), (sym_record_type, STATE 1805),
     (sym__type_name, STATE 2156), (sym__final_var_or_type, STATE 3469),
     (sym_inferred_type, STATE 3547), (sym_qualified, STATE 2124),
     (sym__function_builtin_identifier, STATE 1463), (sym_final_builtin, STATE 2100),
     (sym_comment, STATE 375), (sym_documentation_comment, STATE 375),
     (aux_sym_string_literal_repeat1, STATE 1475), (sym_identifier, ACTIONS 896),
     (anon_sym_POUND, ACTIONS 899), (sym_decimal_integer_literal, ACTIONS 902),
     (sym_hex_integer_literal, ACTIONS 905), (sym_decimal_floating_point_literal, ACTIONS 902),
     (anon_sym_true, ACTIONS 908), (anon_sym_false, ACTIONS 911), (anon_sym_DQUOTE, ACTIONS 914),
     (anon_sym_SQUOTE, ACTIONS 917), (anon_sym_DQUOTE_DQUOTE_DQUOTE, ACTIONS 920),
     (anon_sym_SQUOTE_SQUOTE_SQUOTE, ACTIONS 923), (anon_sym_r_DQUOTE, ACTIONS 926),
     (anon_sym_r_SQUOTE, ACTIONS 929), (anon_sym_r_DQUOTE_DQUOTE_DQUOTE, ACTIONS 932),
     (anon_sym_r_SQUOTE_SQUOTE_SQUOTE, ACTIONS 935), (anon_sym_LBRACE, ACTIONS 938),
     (anon_sym_LBRACK, ACTIONS 941), (anon_sym_null, ACTIONS 944),
     (anon_sym_LPAREN, ACTIONS 947), (anon_sym_throw, ACTIONS 950),
     (sym_equality_operator, ACTIONS 396), (anon_sym_LT, ACTIONS 952),
     (anon_sym_GT, ACTIONS 400), (anon_sym_LT_EQ, ACTIONS 402), (anon_sym_GT_EQ, ACTIONS 402),
     (sym_increment_operator, ACTIONS 955), (sym_minus_operator, ACTIONS 957),
     (anon_sym_BANG, ACTIONS 950), (anon_sym_TILDE, ACTIONS 955), (anon_sym_await, ACTIONS 950),
     (anon_sym_switch, ACTIONS 950), (anon_sym_final, ACTIONS 145), (sym_void_type, ACTIONS 33),
     (anon_sym_var, ACTIONS 35), (sym_rethrow_builtin, ACTIONS 950),
     (anon_sym_Function, ACTIONS 45), (anon_sym_new, ACTIONS 950),
     (sym_const_builtin, ACTIONS 960), (anon_sym_this, ACTIONS 950),
     (anon_sym_super, ACTIONS 950), (anon_sym_SLASH_SLASH, ACTIONS 3),
     (anon_sym_SLASH_STAR, ACTIONS 5), (anon_sym_SLASH_SLASH_SLASH, ACTIONS 7),
     (sym__block_comment, ACTIONS 9), (sym__documentation_block_comment, ACTIONS 11)]"

lemma row_ok_375: "table_row_ok 375 ts_parse_table_375"
  by (simp add: row_simps ts_parse_table_375_def)

definition ts_parse_table_376 :: table_row where
  "ts_parse_table_376 = [
     (sym__bool_literal, STATE 2124), (sym__numeric_literal, STATE 2124),
     (sym_symbol_literal, STATE 2124), (sym_true, STATE 2120), (sym_false, STATE 2120),
     (sym_string_literal, STATE 2124), (sym__string_literal_double_quotes, STATE 1854),
     (sym__string_literal_single_quotes, STATE 1854),
     (sym__string_literal_double_quotes_multiple, STATE 1854),
     (sym__string_literal_single_quotes_multiple, STATE 1854),
     (sym__raw_string_literal_double_quotes, STATE 1854),
     (sym__raw_string_literal_single_quotes, STATE 1854),
     (sym__raw_string_literal_double_quotes_multiple, STATE 1854),
     (sym__raw_string_literal_single_quotes_multiple, STATE 1854),
     (sym_null_literal, STATE 2124), (sym_relational_operator, STATE 345),
     (sym_const_object_expression, STATE 2124), (sym_type_arguments, STATE 3171),
     (sym__pattern, STATE 3114), (sym__logical_or_pattern, STATE 2373),
     (sym__logical_and_pattern, STATE 2152), (sym__relational_pattern, STATE 2147),
     (sym__unary_pattern, STATE 2230), (sym__primary_pattern, STATE 2129),
     (sym_cast_pattern, STATE 2231), (sym_null_check_pattern, STATE 2231),
     (sym_null_assert_pattern, STATE 2231), (sym_constant_pattern, STATE 2102),
     (sym_variable_pattern, STATE 2102), (sym__parenthesized_pattern, STATE 2102),
     (sym_list_pattern, STATE 2102), (sym_map_pattern, STATE 2102),
     (sym_record_pattern, STATE 2102), (sym__pattern_field, STATE 2754),
     (sym_object_pattern, STATE 2102), (sym_annotation, STATE 1361), (sym__metadata, STATE 2088),
     (sym__type, STATE 2984), (sym__type_not_function, STATE 1796),
     (sym__type_not_void_not_function, STATE 1896), (sym_function_type, STATE 1848),
     (aux_sym__function_type_tails, STATE 1605), (sym__function_type_tail, STATE 1704),
     (sym_record_type, STATE 1805), (sym_record_type_field, STATE 2827),
     (sym__type_name, STATE 2156), (sym__final_var_or_type, STATE 3469),
     (sym_inferred_type, STATE 3547), (sym_qualified, STATE 2124),
     (sym__function_builtin_identifier, STATE 1463), (sym_final_builtin, STATE 2100),
     (sym_comment, STATE 376), (sym_documentation_comment, STATE 376),
     (aux_sym_string_literal_repeat1, STATE 1475), (aux_sym__metadata_repeat1, STATE 1308),
     (sym_identifier, ACTIONS 963), (anon_sym_POUND, ACTIONS 850),
     (sym_decimal_integer_literal, ACTIONS 852), (sym_hex_integer_literal, ACTIONS 854),
     (sym_decimal_floating_point_literal, ACTIONS 852), (anon_sym_true, ACTIONS 856),
     (anon_sym_false, ACTIONS 858), (anon_sym_DQUOTE, ACTIONS 860),
     (anon_sym_SQUOTE, ACTIONS 862), (anon_sym_DQUOTE_DQUOTE_DQUOTE, ACTIONS 864),
     (anon_sym_SQUOTE_SQUOTE_SQUOTE, ACTIONS 866), (anon_sym_r_DQUOTE, ACTIONS 868),
     (anon_sym_r_SQUOTE, ACTIONS 870), (anon_sym_r_DQUOTE_DQUOTE_DQUOTE, ACTIONS 872),
     (anon_sym_r_SQUOTE_SQUOTE_SQUOTE, ACTIONS 874), (anon_sym_LBRACE, ACTIONS 965),
     (anon_sym_LBRACK, ACTIONS 880), (anon_sym_COLON, ACTIONS 428), (anon_sym_null, ACTIONS 882),
     (anon_sym_LPAREN, ACTIONS 884), (anon_sym_RPAREN, ACTIONS 488),
     (sym_equality_operator, ACTIONS 396), (anon_sym_LT, ACTIONS 886),
     (anon_sym_GT, ACTIONS 400), (anon_sym_LT_EQ, ACTIONS 402), (anon_sym_GT_EQ, ACTIONS 402),
     (sym_minus_operator, ACTIONS 888), (anon_sym_AT, ACTIONS 143),
     (anon_sym_final, ACTIONS 145), (sym_void_type, ACTIONS 33), (anon_sym_var, ACTIONS 35),
     (anon_sym_Function, ACTIONS 45), (sym_const_builtin, ACTIONS 894),
     (anon_sym_SLASH_SLASH, ACTIONS 3), (anon_sym_SLASH_STAR, ACTIONS 5),
     (anon_sym_SLASH_SLASH_SLASH, ACTIONS 7), (sym__block_comment, ACTIONS 9),
     (sym__documentation_block_comment, ACTIONS 11)]"

lemma row_ok_376: "table_row_ok 376 ts_parse_table_376"
  by (simp add: row_simps ts_parse_table_376_def)

definition ts_parse_table_377 :: table_row where
  "ts_parse_table_377 = [
     (sym__bool_literal, STATE 2124), (sym__numeric_literal, STATE 2124),
     (sym_symbol_literal, STATE 2124), (sym_true, STATE 2120), (sym_false, STATE 2120),
     (sym_string_literal, STATE 2124), (sym__string_literal_double_quotes, STATE 1854),
     (sym__string_literal_single_quotes, STATE 1854),
     (sym__string_literal_double_quotes_multiple, STATE 1854),
     (sym__string_literal_single_quotes_multiple, STATE 1854),
     (sym__raw_string_literal_double_quotes, STATE 1854),
     (sym__raw_string_literal_single_quotes, STATE 1854),
     (sym__raw_string_literal_double_quotes_multiple, STATE 1854),
     (sym__raw_string_literal_single_quotes_multiple, STATE 1854),
     (sym_null_literal, STATE 2124), (sym_relational_operator, STATE 345),
     (sym_const_object_expression, STATE 2124), (sym_type_arguments, STATE 3171),
     (sym__pattern, STATE 3099), (sym__logical_or_pattern, STATE 2373),
     (sym__logical_and_pattern, STATE 2152), (sym__relational_pattern, STATE 2147),
     (sym__unary_pattern, STATE 2230), (sym__primary_pattern, STATE 2129),
     (sym_cast_pattern, STATE 2231), (sym_null_check_pattern, STATE 2231),
     (sym_null_assert_pattern, STATE 2231), (sym_constant_pattern, STATE 2102),
     (sym_variable_pattern, STATE 2102), (sym__parenthesized_pattern, STATE 2102),
     (sym_list_pattern, STATE 2102), (sym__list_pattern_element, STATE 3268),
     (sym_rest_pattern, STATE 3099), (sym_map_pattern, STATE 2102),
     (sym_record_pattern, STATE 2102), (sym_object_pattern, STATE 2102), (sym__type, STATE 3547),
     (sym__type_not_function, STATE 1796), (sym__type_not_void_not_function, STATE 1896),
     (sym_function_type, STATE 1848), (aux_sym__function_type_tails, STATE 1605),
     (sym__function_type_tail, STATE 1704), (sym_record_type, STATE 1805),
     (sym__type_name, STATE 2156), (sym__final_var_or_type, STATE 3469),
     (sym_inferred_type, STATE 3547), (sym_qualified, STATE 2124),
     (sym__function_builtin_identifier, STATE 1463), (sym_final_builtin, STATE 2100),
     (sym_comment, STATE 377), (sym_documentation_comment, STATE 377),
     (aux_sym_string_literal_repeat1, STATE 1475), (sym_identifier, ACTIONS 967),
     (anon_sym_POUND, ACTIONS 850), (sym_decimal_integer_literal, ACTIONS 852),
     (sym_hex_integer_literal, ACTIONS 854), (sym_decimal_floating_point_literal, ACTIONS 852),
     (anon_sym_true, ACTIONS 856), (anon_sym_false, ACTIONS 858), (anon_sym_DQUOTE, ACTIONS 860),
     (anon_sym_SQUOTE, ACTIONS 862), (anon_sym_DQUOTE_DQUOTE_DQUOTE, ACTIONS 864),
     (anon_sym_SQUOTE_SQUOTE_SQUOTE, ACTIONS 866), (anon_sym_r_DQUOTE, ACTIONS 868),
     (anon_sym_r_SQUOTE, ACTIONS 870), (anon_sym_r_DQUOTE_DQUOTE_DQUOTE, ACTIONS 872),
     (anon_sym_r_SQUOTE_SQUOTE_SQUOTE, ACTIONS 874), (anon_sym_LBRACE, ACTIONS 876),
     (anon_sym_LBRACK, ACTIONS 880), (anon_sym_RBRACK, ACTIONS 969),
     (anon_sym_null, ACTIONS 882), (anon_sym_LPAREN, ACTIONS 884),
     (sym_equality_operator, ACTIONS 396), (anon_sym_LT, ACTIONS 886),
     (anon_sym_GT, ACTIONS 400), (anon_sym_LT_EQ, ACTIONS 402), (anon_sym_GT_EQ, ACTIONS 402),
     (anon_sym_DOT_DOT_DOT, ACTIONS 971), (sym_minus_operator, ACTIONS 888),
     (anon_sym_final, ACTIONS 145), (sym_void_type, ACTIONS 33), (anon_sym_var, ACTIONS 35),
     (anon_sym_Function, ACTIONS 45), (sym_const_builtin, ACTIONS 894),
     (anon_sym_SLASH_SLASH, ACTIONS 3), (anon_sym_SLASH_STAR, ACTIONS 5),
     (anon_sym_SLASH_SLASH_SLASH, ACTIONS 7), (sym__block_comment, ACTIONS 9),
     (sym__documentation_block_comment, ACTIONS 11)]"

lemma row_ok_377: "table_row_ok 377 ts_parse_table_377"
  by (simp add: row_simps ts_parse_table_377_def)

definition ts_parse_table_378 :: table_row where
  "ts_parse_table_378 = [
     (sym_comment, STATE 378), (sym_documentation_comment, STATE 378),
     (sym_identifier, ACTIONS 973), (anon_sym_POUND, ACTIONS 975),
     (sym_decimal_integer_literal, ACTIONS 973), (sym_hex_integer_literal, ACTIONS 975),
     (sym_decimal_floating_point_literal, ACTIONS 973), (anon_sym_true, ACTIONS 973),
     (anon_sym_false, ACTIONS 973), (anon_sym_DQUOTE, ACTIONS 973),
     (anon_sym_SQUOTE, ACTIONS 973), (anon_sym_DQUOTE_DQUOTE_DQUOTE, ACTIONS 975),
     (anon_sym_SQUOTE_SQUOTE_SQUOTE, ACTIONS 975), (anon_sym_r_DQUOTE, ACTIONS 973),
     (anon_sym_r_SQUOTE, ACTIONS 973), (anon_sym_r_DQUOTE_DQUOTE_DQUOTE, ACTIONS 975),
     (anon_sym_r_SQUOTE_SQUOTE_SQUOTE, ACTIONS 975), (anon_sym_LBRACE, ACTIONS 975),
     (anon_sym_RBRACE, ACTIONS 977), (anon_sym_LBRACK, ACTIONS 977),
     (anon_sym_COMMA, ACTIONS 980), (anon_sym_COLON, ACTIONS 980), (anon_sym_null, ACTIONS 973),
     (anon_sym_LPAREN, ACTIONS 977), (anon_sym_throw, ACTIONS 973), (anon_sym_EQ, ACTIONS 982),
     (anon_sym_QMARK_QMARK, ACTIONS 980), (anon_sym_QMARK, ACTIONS 984),
     (sym_equality_operator, ACTIONS 980), (anon_sym_LT, ACTIONS 986),
     (anon_sym_GT, ACTIONS 984), (anon_sym_LT_EQ, ACTIONS 980), (anon_sym_GT_EQ, ACTIONS 980),
     (anon_sym_PIPE, ACTIONS 984), (anon_sym_CARET, ACTIONS 980), (anon_sym_AMP, ACTIONS 984),
     (anon_sym_LT_LT, ACTIONS 980), (anon_sym_GT_GT, ACTIONS 984),
     (anon_sym_GT_GT_GT, ACTIONS 980), (sym__additive_operator, ACTIONS 984),
     (anon_sym_STAR, ACTIONS 980), (anon_sym_SLASH, ACTIONS 984),
     (anon_sym_PERCENT, ACTIONS 980), (anon_sym_TILDE_SLASH, ACTIONS 980),
     (sym_increment_operator, ACTIONS 975), (sym_minus_operator, ACTIONS 973),
     (anon_sym_BANG, ACTIONS 986), (anon_sym_TILDE, ACTIONS 973), (anon_sym_await, ACTIONS 973),
     (anon_sym_is, ACTIONS 984), (anon_sym_as, ACTIONS 984), (anon_sym_DOT, ACTIONS 984),
     (anon_sym_QMARK_DOT, ACTIONS 984), (anon_sym_DOT_DOT, ACTIONS 980),
     (anon_sym_QMARK_DOT_DOT, ACTIONS 980), (anon_sym_SEMI, ACTIONS 980),
     (anon_sym_switch, ACTIONS 973), (anon_sym_do, ACTIONS 973), (anon_sym_while, ACTIONS 973),
     (anon_sym_continue, ACTIONS 973), (anon_sym_yield, ACTIONS 973),
     (anon_sym_return, ACTIONS 973), (anon_sym_try, ACTIONS 973), (anon_sym_if, ACTIONS 973),
     (anon_sym_else, ACTIONS 986), (anon_sym_for, ACTIONS 973), (anon_sym_AT, ACTIONS 975),
     (anon_sym_final, ACTIONS 973), (sym_void_type, ACTIONS 973), (anon_sym_var, ACTIONS 973),
     (sym_break_builtin, ACTIONS 973), (sym_assert_builtin, ACTIONS 973),
     (sym_rethrow_builtin, ACTIONS 973), (anon_sym_covariant, ACTIONS 973),
     (anon_sym_Function, ACTIONS 973), (anon_sym_get, ACTIONS 973), (anon_sym_set, ACTIONS 973),
     (anon_sym_new, ACTIONS 973), (anon_sym_AMP_AMP, ACTIONS 980),
     (anon_sym_PIPE_PIPE, ACTIONS 980), (sym_const_builtin, ACTIONS 973),
     (anon_sym_late, ACTIONS 973), (anon_sym_this, ACTIONS 973), (anon_sym_super, ACTIONS 973),
     (anon_sym_SLASH_SLASH, ACTIONS 3), (anon_sym_SLASH_STAR, ACTIONS 5),
     (anon_sym_SLASH_SLASH_SLASH, ACTIONS 7), (sym__block_comment, ACTIONS 9),
     (sym__documentation_block_comment, ACTIONS 11)]"

lemma row_ok_378: "table_row_ok 378 ts_parse_table_378"
  by (simp add: row_simps ts_parse_table_378_def)

definition ts_parse_table_379 :: table_row where
  "ts_parse_table_379 = [
     (sym__bool_literal, STATE 2124), (sym__numeric_literal, STATE 2124),
     (sym_symbol_literal, STATE 2124), (sym_true, STATE 2120), (sym_false, STATE 2120),
     (sym_string_literal, STATE 2124), (sym__string_literal_double_quotes, STATE 1854),
     (sym__string_literal_single_quotes, STATE 1854),
     (sym__string_literal_double_quotes_multiple, STATE 1854),
     (sym__string_literal_single_quotes_multiple, STATE 1854),
     (sym__raw_string_literal_double_quotes, STATE 1854),
     (sym__raw_string_literal_single_quotes, STATE 1854),
     (sym__raw_string_literal_double_quotes_multiple, STATE 1854),
     (sym__raw_string_literal_single_quotes_multiple, STATE 1854),
     (sym_null_literal, STATE 2124), (sym_relational_operator, STATE 345),
     (sym_const_object_expression, STATE 2124), (sym_type_arguments, STATE 3171),
     (sym__pattern, STATE 3099), (sym__logical_or_pattern, STATE 2373),
     (sym__logical_and_pattern, STATE 2152), (sym__relational_pattern, STATE 2147),
     (sym__unary_pattern, STATE 2230), (sym__primary_pattern, STATE 2129),
     (sym_cast_pattern, STATE 2231), (sym_null_check_pattern, STATE 2231),
     (sym_null_assert_pattern, STATE 2231), (sym_constant_pattern, STATE 2102),
     (sym_variable_pattern, STATE 2102), (sym__parenthesized_pattern, STATE 2102),
     (sym_list_pattern, STATE 2102), (sym__list_pattern_element, STATE 2972),
     (sym_rest_pattern, STATE 3099), (sym_map_pattern, STATE 2102),
     (sym_record_pattern, STATE 2102), (sym_object_pattern, STATE 2102), (sym__type, STATE 3547),
     (sym__type_not_function, STATE 1796), (sym__type_not_void_not_function, STATE 1896),
     (sym_function_type, STATE 1848), (aux_sym__function_type_tails, STATE 1605),
     (sym__function_type_tail, STATE 1704), (sym_record_type, STATE 1805),
     (sym__type_name, STATE 2156), (sym__final_var_or_type, STATE 3469),
     (sym_inferred_type, STATE 3547), (sym_qualified, STATE 2124),
     (sym__function_builtin_identifier, STATE 1463), (sym_final_builtin, STATE 2100),
     (sym_comment, STATE 379), (sym_documentation_comment, STATE 379),
     (aux_sym_string_literal_repeat1, STATE 1475), (sym_identifier, ACTIONS 967),
     (anon_sym_POUND, ACTIONS 850), (sym_decimal_integer_literal, ACTIONS 852),
     (sym_hex_integer_literal, ACTIONS 854), (sym_decimal_floating_point_literal, ACTIONS 852),
     (anon_sym_true, ACTIONS 856), (anon_sym_false, ACTIONS 858), (anon_sym_DQUOTE, ACTIONS 860),
     (anon_sym_SQUOTE, ACTIONS 862), (anon_sym_DQUOTE_DQUOTE_DQUOTE, ACTIONS 864),
     (anon_sym_SQUOTE_SQUOTE_SQUOTE, ACTIONS 866), (anon_sym_r_DQUOTE, ACTIONS 868),
     (anon_sym_r_SQUOTE, ACTIONS 870), (anon_sym_r_DQUOTE_DQUOTE_DQUOTE, ACTIONS 872),
     (anon_sym_r_SQUOTE_SQUOTE_SQUOTE, ACTIONS 874), (anon_sym_LBRACE, ACTIONS 876),
     (anon_sym_LBRACK, ACTIONS 880), (anon_sym_RBRACK, ACTIONS 989),
     (anon_sym_null, ACTIONS 882), (anon_sym_LPAREN, ACTIONS 884),
     (sym_equality_operator, ACTIONS 396), (anon_sym_LT, ACTIONS 886),
     (anon_sym_GT, ACTIONS 400), (anon_sym_LT_EQ, ACTIONS 402), (anon_sym_GT_EQ, ACTIONS 402),
     (anon_sym_DOT_DOT_DOT, ACTIONS 971), (sym_minus_operator, ACTIONS 888),
     (anon_sym_final, ACTIONS 145), (sym_void_type, ACTIONS 33), (anon_sym_var, ACTIONS 35),
     (anon_sym_Function, ACTIONS 45), (sym_const_builtin, ACTIONS 894),
     (anon_sym_SLASH_SLASH, ACTIONS 3), (anon_sym_SLASH_STAR, ACTIONS 5),
     (anon_sym_SLASH_SLASH_SLASH, ACTIONS 7), (sym__block_comment, ACTIONS 9),
     (sym__documentation_block_comment, ACTIONS 11)]"

lemma row_ok_379: "table_row_ok 379 ts_parse_table_379"
  by (simp add: row_simps ts_parse_table_379_def)

definition ts_parse_table_380 :: table_row where
  "ts_parse_table_380 = [
     (sym__bool_literal, STATE 2124), (sym__numeric_literal, STATE 2124),
     (sym_symbol_literal, STATE 2124), (sym_true, STATE 2120), (sym_false, STATE 2120),
     (sym_string_literal, STATE 2124), (sym__string_literal_double_quotes, STATE 1854),
     (sym__string_literal_single_quotes, STATE 1854),
     (sym__string_literal_double_quotes_multiple, STATE 1854),
     (sym__string_literal_single_quotes_multiple, STATE 1854),
     (sym__raw_string_literal_double_quotes, STATE 1854),
     (sym__raw_string_literal_single_quotes, STATE 1854),
     (sym__raw_string_literal_double_quotes_multiple, STATE 1854),
     (sym__raw_string_literal_single_quotes_multiple, STATE 1854),
     (sym_null_literal, STATE 2124), (sym_relational_operator, STATE 345),
     (sym_const_object_expression, STATE 2124), (sym_type_arguments, STATE 3171),
     (sym__pattern, STATE 3099), (sym__logical_or_pattern, STATE 2373),
     (sym__logical_and_pattern, STATE 2152), (sym__relational_pattern, STATE 2147),
     (sym__unary_pattern, STATE 2230), (sym__primary_pattern, STATE 2129),
     (sym_cast_pattern, STATE 2231), (sym_null_check_pattern, STATE 2231),
     (sym_null_assert_pattern, STATE 2231), (sym_constant_pattern, STATE 2102),
     (sym_variable_pattern, STATE 2102), (sym__parenthesized_pattern, STATE 2102),
     (sym_list_pattern, STATE 2102), (sym__list_pattern_element, STATE 3268),
     (sym_rest_pattern, STATE 3099), (sym_map_pattern, STATE 2102),
     (sym_record_pattern, STATE 2102), (sym_object_pattern, STATE 2102), (sym__type, STATE 3547),
     (sym__type_not_function, STATE 1796), (sym__type_not_void_not_function, STATE 1896),
     (sym_function_type, STATE 1848), (aux_sym__function_type_tails, STATE 1605),
     (sym__function_type_tail, STATE 1704), (sym_record_type, STATE 1805),
     (sym__type_name, STATE 2156), (sym__final_var_or_type, STATE 3469),
     (sym_inferred_type, STATE 3547), (sym_qualified, STATE 2124),
     (sym__function_builtin_identifier, STATE 1463), (sym_final_builtin, STATE 2100),
     (sym_comment, STATE 380), (sym_documentation_comment, STATE 380),
     (aux_sym_string_literal_repeat1, STATE 1475), (sym_identifier, ACTIONS 967),
     (anon_sym_POUND, ACTIONS 850), (sym_decimal_integer_literal, ACTIONS 852),
     (sym_hex_integer_literal, ACTIONS 854), (sym_decimal_floating_point_literal, ACTIONS 852),
     (anon_sym_true, ACTIONS 856), (anon_sym_false, ACTIONS 858), (anon_sym_DQUOTE, ACTIONS 860),
     (anon_sym_SQUOTE, ACTIONS 862), (anon_sym_DQUOTE_DQUOTE_DQUOTE, ACTIONS 864),
     (anon_sym_SQUOTE_SQUOTE_SQUOTE, ACTIONS 866), (anon_sym_r_DQUOTE, ACTIONS 868),
     (anon_sym_r_SQUOTE, ACTIONS 870), (anon_sym_r_DQUOTE_DQUOTE_DQUOTE, ACTIONS 872),
     (anon_sym_r_SQUOTE_SQUOTE_SQUOTE, ACTIONS 874), (anon_sym_LBRACE, ACTIONS 876),
     (anon_sym_LBRACK, ACTIONS 880), (anon_sym_RBRACK, ACTIONS 991),
     (anon_sym_null, ACTIONS 882), (anon_sym_LPAREN, ACTIONS 884),
     (sym_equality_operator, ACTIONS 396), (anon_sym_LT, ACTIONS 886),
     (anon_sym_GT, ACTIONS 400), (anon_sym_LT_EQ, ACTIONS 402), (anon_sym_GT_EQ, ACTIONS 402),
     (anon_sym_DOT_DOT_DOT, ACTIONS 971), (sym_minus_operator, ACTIONS 888),
     (anon_sym_final, ACTIONS 145), (sym_void_type, ACTIONS 33), (anon_sym_var, ACTIONS 35),
     (anon_sym_Function, ACTIONS 45), (sym_const_builtin, ACTIONS 894),
     (anon_sym_SLASH_SLASH, ACTIONS 3), (anon_sym_SLASH_STAR, ACTIONS 5),
     (anon_sym_SLASH_SLASH_SLASH, ACTIONS 7), (sym__block_comment, ACTIONS 9),
     (sym__documentation_block_comment, ACTIONS 11)]"

lemma row_ok_380: "table_row_ok 380 ts_parse_table_380"
  by (simp add: row_simps ts_parse_table_380_def)

definition ts_parse_table_381 :: table_row where
  "ts_parse_table_381 = [
     (sym__bool_literal, STATE 2124), (sym__numeric_literal, STATE 2124),
     (sym_symbol_literal, STATE 2124), (sym_true, STATE 2120), (sym_false, STATE 2120),
     (sym_string_literal, STATE 2124), (sym__string_literal_double_quotes, STATE 1854),
     (sym__string_literal_single_quotes, STATE 1854),
     (sym__string_literal_double_quotes_multiple, STATE 1854),
     (sym__string_literal_single_quotes_multiple, STATE 1854),
     (sym__raw_string_literal_double_quotes, STATE 1854),
     (sym__raw_string_literal_single_quotes, STATE 1854),
     (sym__raw_string_literal_double_quotes_multiple, STATE 1854),
     (sym__raw_string_literal_single_quotes_multiple, STATE 1854),
     (sym_null_literal, STATE 2124), (sym_relational_operator, STATE 345),
     (sym_const_object_expression, STATE 2124), (sym_type_arguments, STATE 3171),
     (sym__pattern, STATE 3099), (sym__logical_or_pattern, STATE 2373),
     (sym__logical_and_pattern, STATE 2152), (sym__relational_pattern, STATE 2147),
     (sym__unary_pattern, STATE 2230), (sym__primary_pattern, STATE 2129),
     (sym_cast_pattern, STATE 2231), (sym_null_check_pattern, STATE 2231),
     (sym_null_assert_pattern, STATE 2231), (sym_constant_pattern, STATE 2102),
     (sym_variable_pattern, STATE 2102), (sym__parenthesized_pattern, STATE 2102),
     (sym_list_pattern, STATE 2102), (sym__list_pattern_element, STATE 3268),
     (sym_rest_pattern, STATE 3099), (sym_map_pattern, STATE 2102),
     (sym_record_pattern, STATE 2102), (sym_object_pattern, STATE 2102), (sym__type, STATE 3547),
     (sym__type_not_function, STATE 1796), (sym__type_not_void_not_function, STATE 1896),
     (sym_function_type, STATE 1848), (aux_sym__function_type_tails, STATE 1605),
     (sym__function_type_tail, STATE 1704), (sym_record_type, STATE 1805),
     (sym__type_name, STATE 2156), (sym__final_var_or_type, STATE 3469),
     (sym_inferred_type, STATE 3547), (sym_qualified, STATE 2124),
     (sym__function_builtin_identifier, STATE 1463), (sym_final_builtin, STATE 2100),
     (sym_comment, STATE 381), (sym_documentation_comment, STATE 381),
     (aux_sym_string_literal_repeat1, STATE 1475), (sym_identifier, ACTIONS 967),
     (anon_sym_POUND, ACTIONS 850), (sym_decimal_integer_literal, ACTIONS 852),
     (sym_hex_integer_literal, ACTIONS 854), (sym_decimal_floating_point_literal, ACTIONS 852),
     (anon_sym_true, ACTIONS 856), (anon_sym_false, ACTIONS 858), (anon_sym_DQUOTE, ACTIONS 860),
     (anon_sym_SQUOTE, ACTIONS 862), (anon_sym_DQUOTE_DQUOTE_DQUOTE, ACTIONS 864),
     (anon_sym_SQUOTE_SQUOTE_SQUOTE, ACTIONS 866), (anon_sym_r_DQUOTE, ACTIONS 868),
     (anon_sym_r_SQUOTE, ACTIONS 870), (anon_sym_r_DQUOTE_DQUOTE_DQUOTE, ACTIONS 872),
     (anon_sym_r_SQUOTE_SQUOTE_SQUOTE, ACTIONS 874), (anon_sym_LBRACE, ACTIONS 876),
     (anon_sym_LBRACK, ACTIONS 880), (anon_sym_RBRACK, ACTIONS 993),
     (anon_sym_null, ACTIONS 882), (anon_sym_LPAREN, ACTIONS 884),
     (sym_equality_operator, ACTIONS 396), (anon_sym_LT, ACTIONS 886),
     (anon_sym_GT, ACTIONS 400), (anon_sym_LT_EQ, ACTIONS 402), (anon_sym_GT_EQ, ACTIONS 402),
     (anon_sym_DOT_DOT_DOT, ACTIONS 971), (sym_minus_operator, ACTIONS 888),
     (anon_sym_final, ACTIONS 145), (sym_void_type, ACTIONS 33), (anon_sym_var, ACTIONS 35),
     (anon_sym_Function, ACTIONS 45), (sym_const_builtin, ACTIONS 894),
     (anon_sym_SLASH_SLASH, ACTIONS 3), (anon_sym_SLASH_STAR, ACTIONS 5),
     (anon_sym_SLASH_SLASH_SLASH, ACTIONS 7), (sym__block_comment, ACTIONS 9),
     (sym__documentation_block_comment, ACTIONS 11)]"

lemma row_ok_381: "table_row_ok 381 ts_parse_table_381"
  by (simp add: row_simps ts_parse_table_381_def)

definition ts_parse_table_382 :: table_row where
  "ts_parse_table_382 = [
     (sym_comment, STATE 382), (sym_documentation_comment, STATE 382),
     (sym_identifier, ACTIONS 973), (anon_sym_POUND, ACTIONS 975),
     (sym_decimal_integer_literal, ACTIONS 973), (sym_hex_integer_literal, ACTIONS 975),
     (sym_decimal_floating_point_literal, ACTIONS 973), (anon_sym_true, ACTIONS 973),
     (anon_sym_false, ACTIONS 973), (anon_sym_DQUOTE, ACTIONS 973),
     (anon_sym_SQUOTE, ACTIONS 973), (anon_sym_DQUOTE_DQUOTE_DQUOTE, ACTIONS 975),
     (anon_sym_SQUOTE_SQUOTE_SQUOTE, ACTIONS 975), (anon_sym_r_DQUOTE, ACTIONS 973),
     (anon_sym_r_SQUOTE, ACTIONS 973), (anon_sym_r_DQUOTE_DQUOTE_DQUOTE, ACTIONS 975),
     (anon_sym_r_SQUOTE_SQUOTE_SQUOTE, ACTIONS 975), (anon_sym_LBRACE, ACTIONS 975),
     (anon_sym_RBRACE, ACTIONS 975), (anon_sym_LBRACK, ACTIONS 977),
     (anon_sym_null, ACTIONS 973), (anon_sym_LPAREN, ACTIONS 977), (anon_sym_throw, ACTIONS 973),
     (anon_sym_EQ, ACTIONS 982), (anon_sym_QMARK_QMARK, ACTIONS 980),
     (anon_sym_QMARK, ACTIONS 984), (sym_equality_operator, ACTIONS 980),
     (anon_sym_LT, ACTIONS 986), (anon_sym_GT, ACTIONS 984), (anon_sym_LT_EQ, ACTIONS 980),
     (anon_sym_GT_EQ, ACTIONS 980), (anon_sym_PIPE, ACTIONS 984), (anon_sym_CARET, ACTIONS 980),
     (anon_sym_AMP, ACTIONS 984), (anon_sym_LT_LT, ACTIONS 980), (anon_sym_GT_GT, ACTIONS 984),
     (anon_sym_GT_GT_GT, ACTIONS 980), (sym__additive_operator, ACTIONS 984),
     (anon_sym_STAR, ACTIONS 980), (anon_sym_SLASH, ACTIONS 984),
     (anon_sym_PERCENT, ACTIONS 980), (anon_sym_TILDE_SLASH, ACTIONS 980),
     (sym_increment_operator, ACTIONS 975), (sym_minus_operator, ACTIONS 973),
     (anon_sym_BANG, ACTIONS 986), (anon_sym_TILDE, ACTIONS 973), (anon_sym_await, ACTIONS 973),
     (anon_sym_is, ACTIONS 984), (anon_sym_as, ACTIONS 984), (anon_sym_DOT, ACTIONS 984),
     (anon_sym_QMARK_DOT, ACTIONS 984), (anon_sym_DOT_DOT, ACTIONS 980),
     (anon_sym_QMARK_DOT_DOT, ACTIONS 980), (anon_sym_SEMI, ACTIONS 980),
     (anon_sym_switch, ACTIONS 973), (anon_sym_default, ACTIONS 973), (anon_sym_do, ACTIONS 973),
     (anon_sym_while, ACTIONS 973), (anon_sym_continue, ACTIONS 973),
     (anon_sym_yield, ACTIONS 973), (anon_sym_return, ACTIONS 973), (anon_sym_try, ACTIONS 973),
     (anon_sym_if, ACTIONS 973), (anon_sym_case, ACTIONS 973), (anon_sym_else, ACTIONS 973),
     (anon_sym_for, ACTIONS 973), (anon_sym_AT, ACTIONS 975), (anon_sym_final, ACTIONS 973),
     (sym_void_type, ACTIONS 973), (anon_sym_var, ACTIONS 973), (sym_break_builtin, ACTIONS 973),
     (sym_assert_builtin, ACTIONS 973), (sym_rethrow_builtin, ACTIONS 973),
     (anon_sym_covariant, ACTIONS 973), (anon_sym_Function, ACTIONS 973),
     (anon_sym_get, ACTIONS 973), (anon_sym_set, ACTIONS 973), (anon_sym_new, ACTIONS 973),
     (anon_sym_AMP_AMP, ACTIONS 980), (anon_sym_PIPE_PIPE, ACTIONS 980),
     (sym_const_builtin, ACTIONS 973), (anon_sym_late, ACTIONS 973),
     (anon_sym_this, ACTIONS 973), (anon_sym_super, ACTIONS 973),
     (anon_sym_SLASH_SLASH, ACTIONS 3), (anon_sym_SLASH_STAR, ACTIONS 5),
     (anon_sym_SLASH_SLASH_SLASH, ACTIONS 7), (sym__block_comment, ACTIONS 9),
     (sym__documentation_block_comment, ACTIONS 11)]"

lemma row_ok_382: "table_row_ok 382 ts_parse_table_382"
  by (simp add: row_simps ts_parse_table_382_def)

definition ts_parse_table_383 :: table_row where
  "ts_parse_table_383 = [
     (sym__bool_literal, STATE 2124), (sym__numeric_literal, STATE 2124),
     (sym_symbol_literal, STATE 2124), (sym_true, STATE 2120), (sym_false, STATE 2120),
     (sym_string_literal, STATE 2124), (sym__string_literal_double_quotes, STATE 1854),
     (sym__string_literal_single_quotes, STATE 1854),
     (sym__string_literal_double_quotes_multiple, STATE 1854),
     (sym__string_literal_single_quotes_multiple, STATE 1854),
     (sym__raw_string_literal_double_quotes, STATE 1854),
     (sym__raw_string_literal_single_quotes, STATE 1854),
     (sym__raw_string_literal_double_quotes_multiple, STATE 1854),
     (sym__raw_string_literal_single_quotes_multiple, STATE 1854),
     (sym_null_literal, STATE 2124), (sym_relational_operator, STATE 345),
     (sym_const_object_expression, STATE 2124), (sym_type_arguments, STATE 3171),
     (sym__pattern, STATE 3099), (sym__logical_or_pattern, STATE 2373),
     (sym__logical_and_pattern, STATE 2152), (sym__relational_pattern, STATE 2147),
     (sym__unary_pattern, STATE 2230), (sym__primary_pattern, STATE 2129),
     (sym_cast_pattern, STATE 2231), (sym_null_check_pattern, STATE 2231),
     (sym_null_assert_pattern, STATE 2231), (sym_constant_pattern, STATE 2102),
     (sym_variable_pattern, STATE 2102), (sym__parenthesized_pattern, STATE 2102),
     (sym_list_pattern, STATE 2102), (sym__list_pattern_element, STATE 2771),
     (sym_rest_pattern, STATE 3099), (sym_map_pattern, STATE 2102),
     (sym_record_pattern, STATE 2102), (sym_object_pattern, STATE 2102), (sym__type, STATE 3547),
     (sym__type_not_function, STATE 1796), (sym__type_not_void_not_function, STATE 1896),
     (sym_function_type, STATE 1848), (aux_sym__function_type_tails, STATE 1605),
     (sym__function_type_tail, STATE 1704), (sym_record_type, STATE 1805),
     (sym__type_name, STATE 2156), (sym__final_var_or_type, STATE 3469),
     (sym_inferred_type, STATE 3547), (sym_qualified, STATE 2124),
     (sym__function_builtin_identifier, STATE 1463), (sym_final_builtin, STATE 2100),
     (sym_comment, STATE 383), (sym_documentation_comment, STATE 383),
     (aux_sym_string_literal_repeat1, STATE 1475), (sym_identifier, ACTIONS 967),
     (anon_sym_POUND, ACTIONS 850), (sym_decimal_integer_literal, ACTIONS 852),
     (sym_hex_integer_literal, ACTIONS 854), (sym_decimal_floating_point_literal, ACTIONS 852),
     (anon_sym_true, ACTIONS 856), (anon_sym_false, ACTIONS 858), (anon_sym_DQUOTE, ACTIONS 860),
     (anon_sym_SQUOTE, ACTIONS 862), (anon_sym_DQUOTE_DQUOTE_DQUOTE, ACTIONS 864),
     (anon_sym_SQUOTE_SQUOTE_SQUOTE, ACTIONS 866), (anon_sym_r_DQUOTE, ACTIONS 868),
     (anon_sym_r_SQUOTE, ACTIONS 870), (anon_sym_r_DQUOTE_DQUOTE_DQUOTE, ACTIONS 872),
     (anon_sym_r_SQUOTE_SQUOTE_SQUOTE, ACTIONS 874), (anon_sym_LBRACE, ACTIONS 876),
     (anon_sym_LBRACK, ACTIONS 880), (anon_sym_RBRACK, ACTIONS 995),
     (anon_sym_null, ACTIONS 882), (anon_sym_LPAREN, ACTIONS 884),
     (sym_equality_operator, ACTIONS 396), (anon_sym_LT, ACTIONS 886),
     (anon_sym_GT, ACTIONS 400), (anon_sym_LT_EQ, ACTIONS 402), (anon_sym_GT_EQ, ACTIONS 402),
     (anon_sym_DOT_DOT_DOT, ACTIONS 971), (sym_minus_operator, ACTIONS 888),
     (anon_sym_final, ACTIONS 145), (sym_void_type, ACTIONS 33), (anon_sym_var, ACTIONS 35),
     (anon_sym_Function, ACTIONS 45), (sym_const_builtin, ACTIONS 894),
     (anon_sym_SLASH_SLASH, ACTIONS 3), (anon_sym_SLASH_STAR, ACTIONS 5),
     (anon_sym_SLASH_SLASH_SLASH, ACTIONS 7), (sym__block_comment, ACTIONS 9),
     (sym__documentation_block_comment, ACTIONS 11)]"

lemma row_ok_383: "table_row_ok 383 ts_parse_table_383"
  by (simp add: row_simps ts_parse_table_383_def)

definition ts_parse_table_384 :: table_row where
  "ts_parse_table_384 = [
     (sym__bool_literal, STATE 2124), (sym__numeric_literal, STATE 2124),
     (sym_symbol_literal, STATE 2124), (sym_true, STATE 2120), (sym_false, STATE 2120),
     (sym_string_literal, STATE 2124), (sym__string_literal_double_quotes, STATE 1854),
     (sym__string_literal_single_quotes, STATE 1854),
     (sym__string_literal_double_quotes_multiple, STATE 1854),
     (sym__string_literal_single_quotes_multiple, STATE 1854),
     (sym__raw_string_literal_double_quotes, STATE 1854),
     (sym__raw_string_literal_single_quotes, STATE 1854),
     (sym__raw_string_literal_double_quotes_multiple, STATE 1854),
     (sym__raw_string_literal_single_quotes_multiple, STATE 1854),
     (sym_null_literal, STATE 2124), (sym_relational_operator, STATE 345),
     (sym_const_object_expression, STATE 2124), (sym_type_arguments, STATE 3171),
     (sym__pattern, STATE 3014), (sym__logical_or_pattern, STATE 2373),
     (sym__logical_and_pattern, STATE 2152), (sym__relational_pattern, STATE 2147),
     (sym__unary_pattern, STATE 2230), (sym__primary_pattern, STATE 2129),
     (sym_cast_pattern, STATE 2231), (sym_null_check_pattern, STATE 2231),
     (sym_null_assert_pattern, STATE 2231), (sym_constant_pattern, STATE 2102),
     (sym_variable_pattern, STATE 2102), (sym__parenthesized_pattern, STATE 2102),
     (sym_list_pattern, STATE 2102), (sym_map_pattern, STATE 2102),
     (sym_record_pattern, STATE 2102), (sym__pattern_field, STATE 3184),
     (sym_object_pattern, STATE 2102), (sym__type, STATE 3547),
     (sym__type_not_function, STATE 1796), (sym__type_not_void_not_function, STATE 1896),
     (sym_function_type, STATE 1848), (aux_sym__function_type_tails, STATE 1605),
     (sym__function_type_tail, STATE 1704), (sym_record_type, STATE 1805),
     (sym__type_name, STATE 2156), (sym__final_var_or_type, STATE 3469),
     (sym_inferred_type, STATE 3547), (sym_qualified, STATE 2124),
     (sym__function_builtin_identifier, STATE 1463), (sym_final_builtin, STATE 2100),
     (sym_comment, STATE 384), (sym_documentation_comment, STATE 384),
     (aux_sym_string_literal_repeat1, STATE 1475), (sym_identifier, ACTIONS 997),
     (anon_sym_POUND, ACTIONS 850), (sym_decimal_integer_literal, ACTIONS 852),
     (sym_hex_integer_literal, ACTIONS 854), (sym_decimal_floating_point_literal, ACTIONS 852),
     (anon_sym_true, ACTIONS 856), (anon_sym_false, ACTIONS 858), (anon_sym_DQUOTE, ACTIONS 860),
     (anon_sym_SQUOTE, ACTIONS 862), (anon_sym_DQUOTE_DQUOTE_DQUOTE, ACTIONS 864),
     (anon_sym_SQUOTE_SQUOTE_SQUOTE, ACTIONS 866), (anon_sym_r_DQUOTE, ACTIONS 868),
     (anon_sym_r_SQUOTE, ACTIONS 870), (anon_sym_r_DQUOTE_DQUOTE_DQUOTE, ACTIONS 872),
     (anon_sym_r_SQUOTE_SQUOTE_SQUOTE, ACTIONS 874), (anon_sym_LBRACE, ACTIONS 876),
     (anon_sym_LBRACK, ACTIONS 880), (anon_sym_COLON, ACTIONS 428), (anon_sym_null, ACTIONS 882),
     (anon_sym_LPAREN, ACTIONS 884), (anon_sym_RPAREN, ACTIONS 999),
     (sym_equality_operator, ACTIONS 396), (anon_sym_LT, ACTIONS 886),
     (anon_sym_GT, ACTIONS 400), (anon_sym_LT_EQ, ACTIONS 402), (anon_sym_GT_EQ, ACTIONS 402),
     (sym_minus_operator, ACTIONS 888), (anon_sym_final, ACTIONS 145),
     (sym_void_type, ACTIONS 33), (anon_sym_var, ACTIONS 35), (anon_sym_Function, ACTIONS 45),
     (sym_const_builtin, ACTIONS 894), (anon_sym_SLASH_SLASH, ACTIONS 3),
     (anon_sym_SLASH_STAR, ACTIONS 5), (anon_sym_SLASH_SLASH_SLASH, ACTIONS 7),
     (sym__block_comment, ACTIONS 9), (sym__documentation_block_comment, ACTIONS 11)]"

lemma row_ok_384: "table_row_ok 384 ts_parse_table_384"
  by (simp add: row_simps ts_parse_table_384_def)

definition ts_parse_table_385 :: table_row where
  "ts_parse_table_385 = [
     (sym__bool_literal, STATE 2124), (sym__numeric_literal, STATE 2124),
     (sym_symbol_literal, STATE 2124), (sym_true, STATE 2120), (sym_false, STATE 2120),
     (sym_string_literal, STATE 2124), (sym__string_literal_double_quotes, STATE 1854),
     (sym__string_literal_single_quotes, STATE 1854),
     (sym__string_literal_double_quotes_multiple, STATE 1854),
     (sym__string_literal_single_quotes_multiple, STATE 1854),
     (sym__raw_string_literal_double_quotes, STATE 1854),
     (sym__raw_string_literal_single_quotes, STATE 1854),
     (sym__raw_string_literal_double_quotes_multiple, STATE 1854),
     (sym__raw_string_literal_single_quotes_multiple, STATE 1854),
     (sym_null_literal, STATE 2124), (sym_relational_operator, STATE 345),
     (sym_const_object_expression, STATE 2124), (sym_type_arguments, STATE 3171),
     (sym_switch_expression_case, STATE 3269), (sym__guarded_pattern, STATE 3408),
     (sym__pattern, STATE 2666), (sym__logical_or_pattern, STATE 2373),
     (sym__logical_and_pattern, STATE 2152), (sym__relational_pattern, STATE 2147),
     (sym__unary_pattern, STATE 2230), (sym__primary_pattern, STATE 2129),
     (sym_cast_pattern, STATE 2231), (sym_null_check_pattern, STATE 2231),
     (sym_null_assert_pattern, STATE 2231), (sym_constant_pattern, STATE 2102),
     (sym_variable_pattern, STATE 2102), (sym__parenthesized_pattern, STATE 2102),
     (sym_list_pattern, STATE 2102), (sym_map_pattern, STATE 2102),
     (sym_record_pattern, STATE 2102), (sym_object_pattern, STATE 2102), (sym__type, STATE 3547),
     (sym__type_not_function, STATE 1796), (sym__type_not_void_not_function, STATE 1896),
     (sym_function_type, STATE 1848), (aux_sym__function_type_tails, STATE 1605),
     (sym__function_type_tail, STATE 1704), (sym_record_type, STATE 1805),
     (sym__type_name, STATE 2156), (sym__final_var_or_type, STATE 3469),
     (sym_inferred_type, STATE 3547), (sym_qualified, STATE 2124),
     (sym__function_builtin_identifier, STATE 1463), (sym_final_builtin, STATE 2100),
     (sym_comment, STATE 385), (sym_documentation_comment, STATE 385),
     (aux_sym_string_literal_repeat1, STATE 1475), (sym_identifier, ACTIONS 967),
     (anon_sym_POUND, ACTIONS 850), (sym_decimal_integer_literal, ACTIONS 852),
     (sym_hex_integer_literal, ACTIONS 854), (sym_decimal_floating_point_literal, ACTIONS 852),
     (anon_sym_true, ACTIONS 856), (anon_sym_false, ACTIONS 858), (anon_sym_DQUOTE, ACTIONS 860),
     (anon_sym_SQUOTE, ACTIONS 862), (anon_sym_DQUOTE_DQUOTE_DQUOTE, ACTIONS 864),
     (anon_sym_SQUOTE_SQUOTE_SQUOTE, ACTIONS 866), (anon_sym_r_DQUOTE, ACTIONS 868),
     (anon_sym_r_SQUOTE, ACTIONS 870), (anon_sym_r_DQUOTE_DQUOTE_DQUOTE, ACTIONS 872),
     (anon_sym_r_SQUOTE_SQUOTE_SQUOTE, ACTIONS 874), (anon_sym_LBRACE, ACTIONS 876),
     (anon_sym_RBRACE, ACTIONS 1001), (anon_sym_LBRACK, ACTIONS 880),
     (anon_sym_null, ACTIONS 882), (anon_sym_LPAREN, ACTIONS 884),
     (sym_equality_operator, ACTIONS 396), (anon_sym_LT, ACTIONS 886),
     (anon_sym_GT, ACTIONS 400), (anon_sym_LT_EQ, ACTIONS 402), (anon_sym_GT_EQ, ACTIONS 402),
     (sym_minus_operator, ACTIONS 888), (anon_sym_final, ACTIONS 145),
     (sym_void_type, ACTIONS 33), (anon_sym_var, ACTIONS 35), (anon_sym_Function, ACTIONS 45),
     (sym_const_builtin, ACTIONS 894), (anon_sym_SLASH_SLASH, ACTIONS 3),
     (anon_sym_SLASH_STAR, ACTIONS 5), (anon_sym_SLASH_SLASH_SLASH, ACTIONS 7),
     (sym__block_comment, ACTIONS 9), (sym__documentation_block_comment, ACTIONS 11)]"

lemma row_ok_385: "table_row_ok 385 ts_parse_table_385"
  by (simp add: row_simps ts_parse_table_385_def)

definition ts_parse_table_386 :: table_row where
  "ts_parse_table_386 = [
     (sym__bool_literal, STATE 2124), (sym__numeric_literal, STATE 2124),
     (sym_symbol_literal, STATE 2124), (sym_true, STATE 2120), (sym_false, STATE 2120),
     (sym_string_literal, STATE 2124), (sym__string_literal_double_quotes, STATE 1854),
     (sym__string_literal_single_quotes, STATE 1854),
     (sym__string_literal_double_quotes_multiple, STATE 1854),
     (sym__string_literal_single_quotes_multiple, STATE 1854),
     (sym__raw_string_literal_double_quotes, STATE 1854),
     (sym__raw_string_literal_single_quotes, STATE 1854),
     (sym__raw_string_literal_double_quotes_multiple, STATE 1854),
     (sym__raw_string_literal_single_quotes_multiple, STATE 1854),
     (sym_null_literal, STATE 2124), (sym_relational_operator, STATE 345),
     (sym_const_object_expression, STATE 2124), (sym_type_arguments, STATE 3171),
     (sym_switch_expression_case, STATE 3269), (sym__guarded_pattern, STATE 3408),
     (sym__pattern, STATE 2666), (sym__logical_or_pattern, STATE 2373),
     (sym__logical_and_pattern, STATE 2152), (sym__relational_pattern, STATE 2147),
     (sym__unary_pattern, STATE 2230), (sym__primary_pattern, STATE 2129),
     (sym_cast_pattern, STATE 2231), (sym_null_check_pattern, STATE 2231),
     (sym_null_assert_pattern, STATE 2231), (sym_constant_pattern, STATE 2102),
     (sym_variable_pattern, STATE 2102), (sym__parenthesized_pattern, STATE 2102),
     (sym_list_pattern, STATE 2102), (sym_map_pattern, STATE 2102),
     (sym_record_pattern, STATE 2102), (sym_object_pattern, STATE 2102), (sym__type, STATE 3547),
     (sym__type_not_function, STATE 1796), (sym__type_not_void_not_function, STATE 1896),
     (sym_function_type, STATE 1848), (aux_sym__function_type_tails, STATE 1605),
     (sym__function_type_tail, STATE 1704), (sym_record_type, STATE 1805),
     (sym__type_name, STATE 2156), (sym__final_var_or_type, STATE 3469),
     (sym_inferred_type, STATE 3547), (sym_qualified, STATE 2124),
     (sym__function_builtin_identifier, STATE 1463), (sym_final_builtin, STATE 2100),
     (sym_comment, STATE 386), (sym_documentation_comment, STATE 386),
     (aux_sym_string_literal_repeat1, STATE 1475), (sym_identifier, ACTIONS 967),
     (anon_sym_POUND, ACTIONS 850), (sym_decimal_integer_literal, ACTIONS 852),
     (sym_hex_integer_literal, ACTIONS 854), (sym_decimal_floating_point_literal, ACTIONS 852),
     (anon_sym_true, ACTIONS 856), (anon_sym_false, ACTIONS 858), (anon_sym_DQUOTE, ACTIONS 860),
     (anon_sym_SQUOTE, ACTIONS 862), (anon_sym_DQUOTE_DQUOTE_DQUOTE, ACTIONS 864),
     (anon_sym_SQUOTE_SQUOTE_SQUOTE, ACTIONS 866), (anon_sym_r_DQUOTE, ACTIONS 868),
     (anon_sym_r_SQUOTE, ACTIONS 870), (anon_sym_r_DQUOTE_DQUOTE_DQUOTE, ACTIONS 872),
     (anon_sym_r_SQUOTE_SQUOTE_SQUOTE, ACTIONS 874), (anon_sym_LBRACE, ACTIONS 876),
     (anon_sym_RBRACE, ACTIONS 1003), (anon_sym_LBRACK, ACTIONS 880),
     (anon_sym_null, ACTIONS 882), (anon_sym_LPAREN, ACTIONS 884),
     (sym_equality_operator, ACTIONS 396), (anon_sym_LT, ACTIONS 886),
     (anon_sym_GT, ACTIONS 400), (anon_sym_LT_EQ, ACTIONS 402), (anon_sym_GT_EQ, ACTIONS 402),
     (sym_minus_operator, ACTIONS 888), (anon_sym_final, ACTIONS 145),
     (sym_void_type, ACTIONS 33), (anon_sym_var, ACTIONS 35), (anon_sym_Function, ACTIONS 45),
     (sym_const_builtin, ACTIONS 894), (anon_sym_SLASH_SLASH, ACTIONS 3),
     (anon_sym_SLASH_STAR, ACTIONS 5), (anon_sym_SLASH_SLASH_SLASH, ACTIONS 7),
     (sym__block_comment, ACTIONS 9), (sym__documentation_block_comment, ACTIONS 11)]"

lemma row_ok_386: "table_row_ok 386 ts_parse_table_386"
  by (simp add: row_simps ts_parse_table_386_def)

definition ts_parse_table_387 :: table_row where
  "ts_parse_table_387 = [
     (sym__bool_literal, STATE 2124), (sym__numeric_literal, STATE 2124),
     (sym_symbol_literal, STATE 2124), (sym_true, STATE 2120), (sym_false, STATE 2120),
     (sym_string_literal, STATE 2124), (sym__string_literal_double_quotes, STATE 1854),
     (sym__string_literal_single_quotes, STATE 1854),
     (sym__string_literal_double_quotes_multiple, STATE 1854),
     (sym__string_literal_single_quotes_multiple, STATE 1854),
     (sym__raw_string_literal_double_quotes, STATE 1854),
     (sym__raw_string_literal_single_quotes, STATE 1854),
     (sym__raw_string_literal_double_quotes_multiple, STATE 1854),
     (sym__raw_string_literal_single_quotes_multiple, STATE 1854),
     (sym_null_literal, STATE 2124), (sym_relational_operator, STATE 345),
     (sym_const_object_expression, STATE 2124), (sym_type_arguments, STATE 3171),
     (sym_switch_expression_case, STATE 3269), (sym__guarded_pattern, STATE 3408),
     (sym__pattern, STATE 2666), (sym__logical_or_pattern, STATE 2373),
     (sym__logical_and_pattern, STATE 2152), (sym__relational_pattern, STATE 2147),
     (sym__unary_pattern, STATE 2230), (sym__primary_pattern, STATE 2129),
     (sym_cast_pattern, STATE 2231), (sym_null_check_pattern, STATE 2231),
     (sym_null_assert_pattern, STATE 2231), (sym_constant_pattern, STATE 2102),
     (sym_variable_pattern, STATE 2102), (sym__parenthesized_pattern, STATE 2102),
     (sym_list_pattern, STATE 2102), (sym_map_pattern, STATE 2102),
     (sym_record_pattern, STATE 2102), (sym_object_pattern, STATE 2102), (sym__type, STATE 3547),
     (sym__type_not_function, STATE 1796), (sym__type_not_void_not_function, STATE 1896),
     (sym_function_type, STATE 1848), (aux_sym__function_type_tails, STATE 1605),
     (sym__function_type_tail, STATE 1704), (sym_record_type, STATE 1805),
     (sym__type_name, STATE 2156), (sym__final_var_or_type, STATE 3469),
     (sym_inferred_type, STATE 3547), (sym_qualified, STATE 2124),
     (sym__function_builtin_identifier, STATE 1463), (sym_final_builtin, STATE 2100),
     (sym_comment, STATE 387), (sym_documentation_comment, STATE 387),
     (aux_sym_string_literal_repeat1, STATE 1475), (sym_identifier, ACTIONS 967),
     (anon_sym_POUND, ACTIONS 850), (sym_decimal_integer_literal, ACTIONS 852),
     (sym_hex_integer_literal, ACTIONS 854), (sym_decimal_floating_point_literal, ACTIONS 852),
     (anon_sym_true, ACTIONS 856), (anon_sym_false, ACTIONS 858), (anon_sym_DQUOTE, ACTIONS 860),
     (anon_sym_SQUOTE, ACTIONS 862), (anon_sym_DQUOTE_DQUOTE_DQUOTE, ACTIONS 864),
     (anon_sym_SQUOTE_SQUOTE_SQUOTE, ACTIONS 866), (anon_sym_r_DQUOTE, ACTIONS 868),
     (anon_sym_r_SQUOTE, ACTIONS 870), (anon_sym_r_DQUOTE_DQUOTE_DQUOTE, ACTIONS 872),
     (anon_sym_r_SQUOTE_SQUOTE_SQUOTE, ACTIONS 874), (anon_sym_LBRACE, ACTIONS 876),
     (anon_sym_RBRACE, ACTIONS 1005), (anon_sym_LBRACK, ACTIONS 880),
     (anon_sym_null, ACTIONS 882), (anon_sym_LPAREN, ACTIONS 884),
     (sym_equality_operator, ACTIONS 396), (anon_sym_LT, ACTIONS 886),
     (anon_sym_GT, ACTIONS 400), (anon_sym_LT_EQ, ACTIONS 402), (anon_sym_GT_EQ, ACTIONS 402),
     (sym_minus_operator, ACTIONS 888), (anon_sym_final, ACTIONS 145),
     (sym_void_type, ACTIONS 33), (anon_sym_var, ACTIONS 35), (anon_sym_Function, ACTIONS 45),
     (sym_const_builtin, ACTIONS 894), (anon_sym_SLASH_SLASH, ACTIONS 3),
     (anon_sym_SLASH_STAR, ACTIONS 5), (anon_sym_SLASH_SLASH_SLASH, ACTIONS 7),
     (sym__block_comment, ACTIONS 9), (sym__documentation_block_comment, ACTIONS 11)]"

lemma row_ok_387: "table_row_ok 387 ts_parse_table_387"
  by (simp add: row_simps ts_parse_table_387_def)

definition ts_parse_table_388 :: table_row where
  "ts_parse_table_388 = [
     (sym__bool_literal, STATE 2124), (sym__numeric_literal, STATE 2124),
     (sym_symbol_literal, STATE 2124), (sym_true, STATE 2120), (sym_false, STATE 2120),
     (sym_string_literal, STATE 2124), (sym__string_literal_double_quotes, STATE 1854),
     (sym__string_literal_single_quotes, STATE 1854),
     (sym__string_literal_double_quotes_multiple, STATE 1854),
     (sym__string_literal_single_quotes_multiple, STATE 1854),
     (sym__raw_string_literal_double_quotes, STATE 1854),
     (sym__raw_string_literal_single_quotes, STATE 1854),
     (sym__raw_string_literal_double_quotes_multiple, STATE 1854),
     (sym__raw_string_literal_single_quotes_multiple, STATE 1854),
     (sym_null_literal, STATE 2124), (sym_relational_operator, STATE 345),
     (sym_const_object_expression, STATE 2124), (sym_type_arguments, STATE 3171),
     (sym__pattern, STATE 3014), (sym__logical_or_pattern, STATE 2373),
     (sym__logical_and_pattern, STATE 2152), (sym__relational_pattern, STATE 2147),
     (sym__unary_pattern, STATE 2230), (sym__primary_pattern, STATE 2129),
     (sym_cast_pattern, STATE 2231), (sym_null_check_pattern, STATE 2231),
     (sym_null_assert_pattern, STATE 2231), (sym_constant_pattern, STATE 2102),
     (sym_variable_pattern, STATE 2102), (sym__parenthesized_pattern, STATE 2102),
     (sym_list_pattern, STATE 2102), (sym_map_pattern, STATE 2102),
     (sym_record_pattern, STATE 2102), (sym__pattern_field, STATE 3184),
     (sym_object_pattern, STATE 2102), (sym__type, STATE 3547),
     (sym__type_not_function, STATE 1796), (sym__type_not_void_not_function, STATE 1896),
     (sym_function_type, STATE 1848), (aux_sym__function_type_tails, STATE 1605),
     (sym__function_type_tail, STATE 1704), (sym_record_type, STATE 1805),
     (sym__type_name, STATE 2156), (sym__final_var_or_type, STATE 3469),
     (sym_inferred_type, STATE 3547), (sym_qualified, STATE 2124),
     (sym__function_builtin_identifier, STATE 1463), (sym_final_builtin, STATE 2100),
     (sym_comment, STATE 388), (sym_documentation_comment, STATE 388),
     (aux_sym_string_literal_repeat1, STATE 1475), (sym_identifier, ACTIONS 997),
     (anon_sym_POUND, ACTIONS 850), (sym_decimal_integer_literal, ACTIONS 852),
     (sym_hex_integer_literal, ACTIONS 854), (sym_decimal_floating_point_literal, ACTIONS 852),
     (anon_sym_true, ACTIONS 856), (anon_sym_false, ACTIONS 858), (anon_sym_DQUOTE, ACTIONS 860),
     (anon_sym_SQUOTE, ACTIONS 862), (anon_sym_DQUOTE_DQUOTE_DQUOTE, ACTIONS 864),
     (anon_sym_SQUOTE_SQUOTE_SQUOTE, ACTIONS 866), (anon_sym_r_DQUOTE, ACTIONS 868),
     (anon_sym_r_SQUOTE, ACTIONS 870), (anon_sym_r_DQUOTE_DQUOTE_DQUOTE, ACTIONS 872),
     (anon_sym_r_SQUOTE_SQUOTE_SQUOTE, ACTIONS 874), (anon_sym_LBRACE, ACTIONS 876),
     (anon_sym_LBRACK, ACTIONS 880), (anon_sym_COLON, ACTIONS 428), (anon_sym_null, ACTIONS 882),
     (anon_sym_LPAREN, ACTIONS 884), (anon_sym_RPAREN, ACTIONS 1007),
     (sym_equality_operator, ACTIONS 396), (anon_sym_LT, ACTIONS 886),
     (anon_sym_GT, ACTIONS 400), (anon_sym_LT_EQ, ACTIONS 402), (anon_sym_GT_EQ, ACTIONS 402),
     (sym_minus_operator, ACTIONS 888), (anon_sym_final, ACTIONS 145),
     (sym_void_type, ACTIONS 33), (anon_sym_var, ACTIONS 35), (anon_sym_Function, ACTIONS 45),
     (sym_const_builtin, ACTIONS 894), (anon_sym_SLASH_SLASH, ACTIONS 3),
     (anon_sym_SLASH_STAR, ACTIONS 5), (anon_sym_SLASH_SLASH_SLASH, ACTIONS 7),
     (sym__block_comment, ACTIONS 9), (sym__documentation_block_comment, ACTIONS 11)]"

lemma row_ok_388: "table_row_ok 388 ts_parse_table_388"
  by (simp add: row_simps ts_parse_table_388_def)

definition ts_parse_table_389 :: table_row where
  "ts_parse_table_389 = [
     (sym__bool_literal, STATE 2124), (sym__numeric_literal, STATE 2124),
     (sym_symbol_literal, STATE 2124), (sym_true, STATE 2120), (sym_false, STATE 2120),
     (sym_string_literal, STATE 2124), (sym__string_literal_double_quotes, STATE 1854),
     (sym__string_literal_single_quotes, STATE 1854),
     (sym__string_literal_double_quotes_multiple, STATE 1854),
     (sym__string_literal_single_quotes_multiple, STATE 1854),
     (sym__raw_string_literal_double_quotes, STATE 1854),
     (sym__raw_string_literal_single_quotes, STATE 1854),
     (sym__raw_string_literal_double_quotes_multiple, STATE 1854),
     (sym__raw_string_literal_single_quotes_multiple, STATE 1854),
     (sym_null_literal, STATE 2124), (sym_relational_operator, STATE 345),
     (sym_const_object_expression, STATE 2124), (sym_type_arguments, STATE 3171),
     (sym__pattern, STATE 3014), (sym__logical_or_pattern, STATE 2373),
     (sym__logical_and_pattern, STATE 2152), (sym__relational_pattern, STATE 2147),
     (sym__unary_pattern, STATE 2230), (sym__primary_pattern, STATE 2129),
     (sym_cast_pattern, STATE 2231), (sym_null_check_pattern, STATE 2231),
     (sym_null_assert_pattern, STATE 2231), (sym_constant_pattern, STATE 2102),
     (sym_variable_pattern, STATE 2102), (sym__parenthesized_pattern, STATE 2102),
     (sym_list_pattern, STATE 2102), (sym_map_pattern, STATE 2102),
     (sym_record_pattern, STATE 2102), (sym__pattern_field, STATE 3184),
     (sym_object_pattern, STATE 2102), (sym__type, STATE 3547),
     (sym__type_not_function, STATE 1796), (sym__type_not_void_not_function, STATE 1896),
     (sym_function_type, STATE 1848), (aux_sym__function_type_tails, STATE 1605),
     (sym__function_type_tail, STATE 1704), (sym_record_type, STATE 1805),
     (sym__type_name, STATE 2156), (sym__final_var_or_type, STATE 3469),
     (sym_inferred_type, STATE 3547), (sym_qualified, STATE 2124),
     (sym__function_builtin_identifier, STATE 1463), (sym_final_builtin, STATE 2100),
     (sym_comment, STATE 389), (sym_documentation_comment, STATE 389),
     (aux_sym_string_literal_repeat1, STATE 1475), (sym_identifier, ACTIONS 997),
     (anon_sym_POUND, ACTIONS 850), (sym_decimal_integer_literal, ACTIONS 852),
     (sym_hex_integer_literal, ACTIONS 854), (sym_decimal_floating_point_literal, ACTIONS 852),
     (anon_sym_true, ACTIONS 856), (anon_sym_false, ACTIONS 858), (anon_sym_DQUOTE, ACTIONS 860),
     (anon_sym_SQUOTE, ACTIONS 862), (anon_sym_DQUOTE_DQUOTE_DQUOTE, ACTIONS 864),
     (anon_sym_SQUOTE_SQUOTE_SQUOTE, ACTIONS 866), (anon_sym_r_DQUOTE, ACTIONS 868),
     (anon_sym_r_SQUOTE, ACTIONS 870), (anon_sym_r_DQUOTE_DQUOTE_DQUOTE, ACTIONS 872),
     (anon_sym_r_SQUOTE_SQUOTE_SQUOTE, ACTIONS 874), (anon_sym_LBRACE, ACTIONS 876),
     (anon_sym_LBRACK, ACTIONS 880), (anon_sym_COLON, ACTIONS 428), (anon_sym_null, ACTIONS 882),
     (anon_sym_LPAREN, ACTIONS 884), (anon_sym_RPAREN, ACTIONS 1009),
     (sym_equality_operator, ACTIONS 396), (anon_sym_LT, ACTIONS 886),
     (anon_sym_GT, ACTIONS 400), (anon_sym_LT_EQ, ACTIONS 402), (anon_sym_GT_EQ, ACTIONS 402),
     (sym_minus_operator, ACTIONS 888), (anon_sym_final, ACTIONS 145),
     (sym_void_type, ACTIONS 33), (anon_sym_var, ACTIONS 35), (anon_sym_Function, ACTIONS 45),
     (sym_const_builtin, ACTIONS 894), (anon_sym_SLASH_SLASH, ACTIONS 3),
     (anon_sym_SLASH_STAR, ACTIONS 5), (anon_sym_SLASH_SLASH_SLASH, ACTIONS 7),
     (sym__block_comment, ACTIONS 9), (sym__documentation_block_comment, ACTIONS 11)]"

lemma row_ok_389: "table_row_ok 389 ts_parse_table_389"
  by (simp add: row_simps ts_parse_table_389_def)

definition ts_parse_table_390 :: table_row where
  "ts_parse_table_390 = [
     (sym__bool_literal, STATE 2124), (sym__numeric_literal, STATE 2124),
     (sym_symbol_literal, STATE 2124), (sym_true, STATE 2120), (sym_false, STATE 2120),
     (sym_string_literal, STATE 2124), (sym__string_literal_double_quotes, STATE 1854),
     (sym__string_literal_single_quotes, STATE 1854),
     (sym__string_literal_double_quotes_multiple, STATE 1854),
     (sym__string_literal_single_quotes_multiple, STATE 1854),
     (sym__raw_string_literal_double_quotes, STATE 1854),
     (sym__raw_string_literal_single_quotes, STATE 1854),
     (sym__raw_string_literal_double_quotes_multiple, STATE 1854),
     (sym__raw_string_literal_single_quotes_multiple, STATE 1854),
     (sym_null_literal, STATE 2124), (sym_relational_operator, STATE 345),
     (sym_const_object_expression, STATE 2124), (sym_type_arguments, STATE 3171),
     (sym_switch_expression_case, STATE 3269), (sym__guarded_pattern, STATE 3408),
     (sym__pattern, STATE 2666), (sym__logical_or_pattern, STATE 2373),
     (sym__logical_and_pattern, STATE 2152), (sym__relational_pattern, STATE 2147),
     (sym__unary_pattern, STATE 2230), (sym__primary_pattern, STATE 2129),
     (sym_cast_pattern, STATE 2231), (sym_null_check_pattern, STATE 2231),
     (sym_null_assert_pattern, STATE 2231), (sym_constant_pattern, STATE 2102),
     (sym_variable_pattern, STATE 2102), (sym__parenthesized_pattern, STATE 2102),
     (sym_list_pattern, STATE 2102), (sym_map_pattern, STATE 2102),
     (sym_record_pattern, STATE 2102), (sym_object_pattern, STATE 2102), (sym__type, STATE 3547),
     (sym__type_not_function, STATE 1796), (sym__type_not_void_not_function, STATE 1896),
     (sym_function_type, STATE 1848), (aux_sym__function_type_tails, STATE 1605),
     (sym__function_type_tail, STATE 1704), (sym_record_type, STATE 1805),
     (sym__type_name, STATE 2156), (sym__final_var_or_type, STATE 3469),
     (sym_inferred_type, STATE 3547), (sym_qualified, STATE 2124),
     (sym__function_builtin_identifier, STATE 1463), (sym_final_builtin, STATE 2100),
     (sym_comment, STATE 390), (sym_documentation_comment, STATE 390),
     (aux_sym_string_literal_repeat1, STATE 1475), (sym_identifier, ACTIONS 967),
     (anon_sym_POUND, ACTIONS 850), (sym_decimal_integer_literal, ACTIONS 852),
     (sym_hex_integer_literal, ACTIONS 854), (sym_decimal_floating_point_literal, ACTIONS 852),
     (anon_sym_true, ACTIONS 856), (anon_sym_false, ACTIONS 858), (anon_sym_DQUOTE, ACTIONS 860),
     (anon_sym_SQUOTE, ACTIONS 862), (anon_sym_DQUOTE_DQUOTE_DQUOTE, ACTIONS 864),
     (anon_sym_SQUOTE_SQUOTE_SQUOTE, ACTIONS 866), (anon_sym_r_DQUOTE, ACTIONS 868),
     (anon_sym_r_SQUOTE, ACTIONS 870), (anon_sym_r_DQUOTE_DQUOTE_DQUOTE, ACTIONS 872),
     (anon_sym_r_SQUOTE_SQUOTE_SQUOTE, ACTIONS 874), (anon_sym_LBRACE, ACTIONS 876),
     (anon_sym_RBRACE, ACTIONS 1011), (anon_sym_LBRACK, ACTIONS 880),
     (anon_sym_null, ACTIONS 882), (anon_sym_LPAREN, ACTIONS 884),
     (sym_equality_operator, ACTIONS 396), (anon_sym_LT, ACTIONS 886),
     (anon_sym_GT, ACTIONS 400), (anon_sym_LT_EQ, ACTIONS 402), (anon_sym_GT_EQ, ACTIONS 402),
     (sym_minus_operator, ACTIONS 888), (anon_sym_final, ACTIONS 145),
     (sym_void_type, ACTIONS 33), (anon_sym_var, ACTIONS 35), (anon_sym_Function, ACTIONS 45),
     (sym_const_builtin, ACTIONS 894), (anon_sym_SLASH_SLASH, ACTIONS 3),
     (anon_sym_SLASH_STAR, ACTIONS 5), (anon_sym_SLASH_SLASH_SLASH, ACTIONS 7),
     (sym__block_comment, ACTIONS 9), (sym__documentation_block_comment, ACTIONS 11)]"

lemma row_ok_390: "table_row_ok 390 ts_parse_table_390"
  by (simp add: row_simps ts_parse_table_390_def)

definition ts_parse_table_391 :: table_row where
  "ts_parse_table_391 = [
     (sym__bool_literal, STATE 2124), (sym__numeric_literal, STATE 2124),
     (sym_symbol_literal, STATE 2124), (sym_true, STATE 2120), (sym_false, STATE 2120),
     (sym_string_literal, STATE 2124), (sym__string_literal_double_quotes, STATE 1854),
     (sym__string_literal_single_quotes, STATE 1854),
     (sym__string_literal_double_quotes_multiple, STATE 1854),
     (sym__string_literal_single_quotes_multiple, STATE 1854),
     (sym__raw_string_literal_double_quotes, STATE 1854),
     (sym__raw_string_literal_single_quotes, STATE 1854),
     (sym__raw_string_literal_double_quotes_multiple, STATE 1854),
     (sym__raw_string_literal_single_quotes_multiple, STATE 1854),
     (sym_null_literal, STATE 2124), (sym_relational_operator, STATE 345),
     (sym_const_object_expression, STATE 2124), (sym_type_arguments, STATE 3171),
     (sym__pattern, STATE 3014), (sym__logical_or_pattern, STATE 2373),
     (sym__logical_and_pattern, STATE 2152), (sym__relational_pattern, STATE 2147),
     (sym__unary_pattern, STATE 2230), (sym__primary_pattern, STATE 2129),
     (sym_cast_pattern, STATE 2231), (sym_null_check_pattern, STATE 2231),
     (sym_null_assert_pattern, STATE 2231), (sym_constant_pattern, STATE 2102),
     (sym_variable_pattern, STATE 2102), (sym__parenthesized_pattern, STATE 2102),
     (sym_list_pattern, STATE 2102), (sym_map_pattern, STATE 2102),
     (sym_record_pattern, STATE 2102), (sym__pattern_field, STATE 3184),
     (sym_object_pattern, STATE 2102), (sym__type, STATE 3547),
     (sym__type_not_function, STATE 1796), (sym__type_not_void_not_function, STATE 1896),
     (sym_function_type, STATE 1848), (aux_sym__function_type_tails, STATE 1605),
     (sym__function_type_tail, STATE 1704), (sym_record_type, STATE 1805),
     (sym__type_name, STATE 2156), (sym__final_var_or_type, STATE 3469),
     (sym_inferred_type, STATE 3547), (sym_qualified, STATE 2124),
     (sym__function_builtin_identifier, STATE 1463), (sym_final_builtin, STATE 2100),
     (sym_comment, STATE 391), (sym_documentation_comment, STATE 391),
     (aux_sym_string_literal_repeat1, STATE 1475), (sym_identifier, ACTIONS 997),
     (anon_sym_POUND, ACTIONS 850), (sym_decimal_integer_literal, ACTIONS 852),
     (sym_hex_integer_literal, ACTIONS 854), (sym_decimal_floating_point_literal, ACTIONS 852),
     (anon_sym_true, ACTIONS 856), (anon_sym_false, ACTIONS 858), (anon_sym_DQUOTE, ACTIONS 860),
     (anon_sym_SQUOTE, ACTIONS 862), (anon_sym_DQUOTE_DQUOTE_DQUOTE, ACTIONS 864),
     (anon_sym_SQUOTE_SQUOTE_SQUOTE, ACTIONS 866), (anon_sym_r_DQUOTE, ACTIONS 868),
     (anon_sym_r_SQUOTE, ACTIONS 870), (anon_sym_r_DQUOTE_DQUOTE_DQUOTE, ACTIONS 872),
     (anon_sym_r_SQUOTE_SQUOTE_SQUOTE, ACTIONS 874), (anon_sym_LBRACE, ACTIONS 876),
     (anon_sym_LBRACK, ACTIONS 880), (anon_sym_COLON, ACTIONS 428), (anon_sym_null, ACTIONS 882),
     (anon_sym_LPAREN, ACTIONS 884), (anon_sym_RPAREN, ACTIONS 1013),
     (sym_equality_operator, ACTIONS 396), (anon_sym_LT, ACTIONS 886),
     (anon_sym_GT, ACTIONS 400), (anon_sym_LT_EQ, ACTIONS 402), (anon_sym_GT_EQ, ACTIONS 402),
     (sym_minus_operator, ACTIONS 888), (anon_sym_final, ACTIONS 145),
     (sym_void_type, ACTIONS 33), (anon_sym_var, ACTIONS 35), (anon_sym_Function, ACTIONS 45),
     (sym_const_builtin, ACTIONS 894), (anon_sym_SLASH_SLASH, ACTIONS 3),
     (anon_sym_SLASH_STAR, ACTIONS 5), (anon_sym_SLASH_SLASH_SLASH, ACTIONS 7),
     (sym__block_comment, ACTIONS 9), (sym__documentation_block_comment, ACTIONS 11)]"

lemma row_ok_391: "table_row_ok 391 ts_parse_table_391"
  by (simp add: row_simps ts_parse_table_391_def)

definition ts_parse_table_392 :: table_row where
  "ts_parse_table_392 = [
     (sym__bool_literal, STATE 2124), (sym__numeric_literal, STATE 2124),
     (sym_symbol_literal, STATE 2124), (sym_true, STATE 2120), (sym_false, STATE 2120),
     (sym_string_literal, STATE 2124), (sym__string_literal_double_quotes, STATE 1854),
     (sym__string_literal_single_quotes, STATE 1854),
     (sym__string_literal_double_quotes_multiple, STATE 1854),
     (sym__string_literal_single_quotes_multiple, STATE 1854),
     (sym__raw_string_literal_double_quotes, STATE 1854),
     (sym__raw_string_literal_single_quotes, STATE 1854),
     (sym__raw_string_literal_double_quotes_multiple, STATE 1854),
     (sym__raw_string_literal_single_quotes_multiple, STATE 1854),
     (sym_null_literal, STATE 2124), (sym_relational_operator, STATE 345),
     (sym_const_object_expression, STATE 2124), (sym_type_arguments, STATE 3171),
     (sym_switch_expression_case, STATE 3269), (sym__guarded_pattern, STATE 3408),
     (sym__pattern, STATE 2666), (sym__logical_or_pattern, STATE 2373),
     (sym__logical_and_pattern, STATE 2152), (sym__relational_pattern, STATE 2147),
     (sym__unary_pattern, STATE 2230), (sym__primary_pattern, STATE 2129),
     (sym_cast_pattern, STATE 2231), (sym_null_check_pattern, STATE 2231),
     (sym_null_assert_pattern, STATE 2231), (sym_constant_pattern, STATE 2102),
     (sym_variable_pattern, STATE 2102), (sym__parenthesized_pattern, STATE 2102),
     (sym_list_pattern, STATE 2102), (sym_map_pattern, STATE 2102),
     (sym_record_pattern, STATE 2102), (sym_object_pattern, STATE 2102), (sym__type, STATE 3547),
     (sym__type_not_function, STATE 1796), (sym__type_not_void_not_function, STATE 1896),
     (sym_function_type, STATE 1848), (aux_sym__function_type_tails, STATE 1605),
     (sym__function_type_tail, STATE 1704), (sym_record_type, STATE 1805),
     (sym__type_name, STATE 2156), (sym__final_var_or_type, STATE 3469),
     (sym_inferred_type, STATE 3547), (sym_qualified, STATE 2124),
     (sym__function_builtin_identifier, STATE 1463), (sym_final_builtin, STATE 2100),
     (sym_comment, STATE 392), (sym_documentation_comment, STATE 392),
     (aux_sym_string_literal_repeat1, STATE 1475), (sym_identifier, ACTIONS 967),
     (anon_sym_POUND, ACTIONS 850), (sym_decimal_integer_literal, ACTIONS 852),
     (sym_hex_integer_literal, ACTIONS 854), (sym_decimal_floating_point_literal, ACTIONS 852),
     (anon_sym_true, ACTIONS 856), (anon_sym_false, ACTIONS 858), (anon_sym_DQUOTE, ACTIONS 860),
     (anon_sym_SQUOTE, ACTIONS 862), (anon_sym_DQUOTE_DQUOTE_DQUOTE, ACTIONS 864),
     (anon_sym_SQUOTE_SQUOTE_SQUOTE, ACTIONS 866), (anon_sym_r_DQUOTE, ACTIONS 868),
     (anon_sym_r_SQUOTE, ACTIONS 870), (anon_sym_r_DQUOTE_DQUOTE_DQUOTE, ACTIONS 872),
     (anon_sym_r_SQUOTE_SQUOTE_SQUOTE, ACTIONS 874), (anon_sym_LBRACE, ACTIONS 876),
     (anon_sym_RBRACE, ACTIONS 1015), (anon_sym_LBRACK, ACTIONS 880),
     (anon_sym_null, ACTIONS 882), (anon_sym_LPAREN, ACTIONS 884),
     (sym_equality_operator, ACTIONS 396), (anon_sym_LT, ACTIONS 886),
     (anon_sym_GT, ACTIONS 400), (anon_sym_LT_EQ, ACTIONS 402), (anon_sym_GT_EQ, ACTIONS 402),
     (sym_minus_operator, ACTIONS 888), (anon_sym_final, ACTIONS 145),
     (sym_void_type, ACTIONS 33), (anon_sym_var, ACTIONS 35), (anon_sym_Function, ACTIONS 45),
     (sym_const_builtin, ACTIONS 894), (anon_sym_SLASH_SLASH, ACTIONS 3),
     (anon_sym_SLASH_STAR, ACTIONS 5), (anon_sym_SLASH_SLASH_SLASH, ACTIONS 7),
     (sym__block_comment, ACTIONS 9), (sym__documentation_block_comment, ACTIONS 11)]"

lemma row_ok_392: "table_row_ok 392 ts_parse_table_392"
  by (simp add: row_simps ts_parse_table_392_def)

definition ts_parse_table_393 :: table_row where
  "ts_parse_table_393 = [
     (sym__bool_literal, STATE 2124), (sym__numeric_literal, STATE 2124),
     (sym_symbol_literal, STATE 2124), (sym_true, STATE 2120), (sym_false, STATE 2120),
     (sym_string_literal, STATE 2124), (sym__string_literal_double_quotes, STATE 1854),
     (sym__string_literal_single_quotes, STATE 1854),
     (sym__string_literal_double_quotes_multiple, STATE 1854),
     (sym__string_literal_single_quotes_multiple, STATE 1854),
     (sym__raw_string_literal_double_quotes, STATE 1854),
     (sym__raw_string_literal_single_quotes, STATE 1854),
     (sym__raw_string_literal_double_quotes_multiple, STATE 1854),
     (sym__raw_string_literal_single_quotes_multiple, STATE 1854),
     (sym_null_literal, STATE 2124), (sym_relational_operator, STATE 345),
     (sym_const_object_expression, STATE 2124), (sym_type_arguments, STATE 3171),
     (sym_switch_expression_case, STATE 3269), (sym__guarded_pattern, STATE 3408),
     (sym__pattern, STATE 2666), (sym__logical_or_pattern, STATE 2373),
     (sym__logical_and_pattern, STATE 2152), (sym__relational_pattern, STATE 2147),
     (sym__unary_pattern, STATE 2230), (sym__primary_pattern, STATE 2129),
     (sym_cast_pattern, STATE 2231), (sym_null_check_pattern, STATE 2231),
     (sym_null_assert_pattern, STATE 2231), (sym_constant_pattern, STATE 2102),
     (sym_variable_pattern, STATE 2102), (sym__parenthesized_pattern, STATE 2102),
     (sym_list_pattern, STATE 2102), (sym_map_pattern, STATE 2102),
     (sym_record_pattern, STATE 2102), (sym_object_pattern, STATE 2102), (sym__type, STATE 3547),
     (sym__type_not_function, STATE 1796), (sym__type_not_void_not_function, STATE 1896),
     (sym_function_type, STATE 1848), (aux_sym__function_type_tails, STATE 1605),
     (sym__function_type_tail, STATE 1704), (sym_record_type, STATE 1805),
     (sym__type_name, STATE 2156), (sym__final_var_or_type, STATE 3469),
     (sym_inferred_type, STATE 3547), (sym_qualified, STATE 2124),
     (sym__function_builtin_identifier, STATE 1463), (sym_final_builtin, STATE 2100),
     (sym_comment, STATE 393), (sym_documentation_comment, STATE 393),
     (aux_sym_string_literal_repeat1, STATE 1475), (sym_identifier, ACTIONS 967),
     (anon_sym_POUND, ACTIONS 850), (sym_decimal_integer_literal, ACTIONS 852),
     (sym_hex_integer_literal, ACTIONS 854), (sym_decimal_floating_point_literal, ACTIONS 852),
     (anon_sym_true, ACTIONS 856), (anon_sym_false, ACTIONS 858), (anon_sym_DQUOTE, ACTIONS 860),
     (anon_sym_SQUOTE, ACTIONS 862), (anon_sym_DQUOTE_DQUOTE_DQUOTE, ACTIONS 864),
     (anon_sym_SQUOTE_SQUOTE_SQUOTE, ACTIONS 866), (anon_sym_r_DQUOTE, ACTIONS 868),
     (anon_sym_r_SQUOTE, ACTIONS 870), (anon_sym_r_DQUOTE_DQUOTE_DQUOTE, ACTIONS 872),
     (anon_sym_r_SQUOTE_SQUOTE_SQUOTE, ACTIONS 874), (anon_sym_LBRACE, ACTIONS 876),
     (anon_sym_RBRACE, ACTIONS 1017), (anon_sym_LBRACK, ACTIONS 880),
     (anon_sym_null, ACTIONS 882), (anon_sym_LPAREN, ACTIONS 884),
     (sym_equality_operator, ACTIONS 396), (anon_sym_LT, ACTIONS 886),
     (anon_sym_GT, ACTIONS 400), (anon_sym_LT_EQ, ACTIONS 402), (anon_sym_GT_EQ, ACTIONS 402),
     (sym_minus_operator, ACTIONS 888), (anon_sym_final, ACTIONS 145),
     (sym_void_type, ACTIONS 33), (anon_sym_var, ACTIONS 35), (anon_sym_Function, ACTIONS 45),
     (sym_const_builtin, ACTIONS 894), (anon_sym_SLASH_SLASH, ACTIONS 3),
     (anon_sym_SLASH_STAR, ACTIONS 5), (anon_sym_SLASH_SLASH_SLASH, ACTIONS 7),
     (sym__block_comment, ACTIONS 9), (sym__documentation_block_comment, ACTIONS 11)]"

lemma row_ok_393: "table_row_ok 393 ts_parse_table_393"
  by (simp add: row_simps ts_parse_table_393_def)

definition ts_parse_table_394 :: table_row where
  "ts_parse_table_394 = [
     (sym__bool_literal, STATE 2124), (sym__numeric_literal, STATE 2124),
     (sym_symbol_literal, STATE 2124), (sym_true, STATE 2120), (sym_false, STATE 2120),
     (sym_string_literal, STATE 2124), (sym__string_literal_double_quotes, STATE 1854),
     (sym__string_literal_single_quotes, STATE 1854),
     (sym__string_literal_double_quotes_multiple, STATE 1854),
     (sym__string_literal_single_quotes_multiple, STATE 1854),
     (sym__raw_string_literal_double_quotes, STATE 1854),
     (sym__raw_string_literal_single_quotes, STATE 1854),
     (sym__raw_string_literal_double_quotes_multiple, STATE 1854),
     (sym__raw_string_literal_single_quotes_multiple, STATE 1854),
     (sym_null_literal, STATE 2124), (sym_relational_operator, STATE 345),
     (sym_const_object_expression, STATE 2124), (sym_type_arguments, STATE 3171),
     (sym__pattern, STATE 3099), (sym__logical_or_pattern, STATE 2373),
     (sym__logical_and_pattern, STATE 2152), (sym__relational_pattern, STATE 2147),
     (sym__unary_pattern, STATE 2230), (sym__primary_pattern, STATE 2129),
     (sym_cast_pattern, STATE 2231), (sym_null_check_pattern, STATE 2231),
     (sym_null_assert_pattern, STATE 2231), (sym_constant_pattern, STATE 2102),
     (sym_variable_pattern, STATE 2102), (sym__parenthesized_pattern, STATE 2102),
     (sym_list_pattern, STATE 2102), (sym__list_pattern_element, STATE 3268),
     (sym_rest_pattern, STATE 3099), (sym_map_pattern, STATE 2102),
     (sym_record_pattern, STATE 2102), (sym_object_pattern, STATE 2102), (sym__type, STATE 3547),
     (sym__type_not_function, STATE 1796), (sym__type_not_void_not_function, STATE 1896),
     (sym_function_type, STATE 1848), (aux_sym__function_type_tails, STATE 1605),
     (sym__function_type_tail, STATE 1704), (sym_record_type, STATE 1805),
     (sym__type_name, STATE 2156), (sym__final_var_or_type, STATE 3469),
     (sym_inferred_type, STATE 3547), (sym_qualified, STATE 2124),
     (sym__function_builtin_identifier, STATE 1463), (sym_final_builtin, STATE 2100),
     (sym_comment, STATE 394), (sym_documentation_comment, STATE 394),
     (aux_sym_string_literal_repeat1, STATE 1475), (sym_identifier, ACTIONS 967),
     (anon_sym_POUND, ACTIONS 850), (sym_decimal_integer_literal, ACTIONS 852),
     (sym_hex_integer_literal, ACTIONS 854), (sym_decimal_floating_point_literal, ACTIONS 852),
     (anon_sym_true, ACTIONS 856), (anon_sym_false, ACTIONS 858), (anon_sym_DQUOTE, ACTIONS 860),
     (anon_sym_SQUOTE, ACTIONS 862), (anon_sym_DQUOTE_DQUOTE_DQUOTE, ACTIONS 864),
     (anon_sym_SQUOTE_SQUOTE_SQUOTE, ACTIONS 866), (anon_sym_r_DQUOTE, ACTIONS 868),
     (anon_sym_r_SQUOTE, ACTIONS 870), (anon_sym_r_DQUOTE_DQUOTE_DQUOTE, ACTIONS 872),
     (anon_sym_r_SQUOTE_SQUOTE_SQUOTE, ACTIONS 874), (anon_sym_LBRACE, ACTIONS 876),
     (anon_sym_LBRACK, ACTIONS 880), (anon_sym_null, ACTIONS 882),
     (anon_sym_LPAREN, ACTIONS 884), (sym_equality_operator, ACTIONS 396),
     (anon_sym_LT, ACTIONS 886), (anon_sym_GT, ACTIONS 400), (anon_sym_LT_EQ, ACTIONS 402),
     (anon_sym_GT_EQ, ACTIONS 402), (anon_sym_DOT_DOT_DOT, ACTIONS 971),
     (sym_minus_operator, ACTIONS 888), (anon_sym_final, ACTIONS 145),
     (sym_void_type, ACTIONS 33), (anon_sym_var, ACTIONS 35), (anon_sym_Function, ACTIONS 45),
     (sym_const_builtin, ACTIONS 894), (anon_sym_SLASH_SLASH, ACTIONS 3),
     (anon_sym_SLASH_STAR, ACTIONS 5), (anon_sym_SLASH_SLASH_SLASH, ACTIONS 7),
     (sym__block_comment, ACTIONS 9), (sym__documentation_block_comment, ACTIONS 11)]"

lemma row_ok_394: "table_row_ok 394 ts_parse_table_394"
  by (simp add: row_simps ts_parse_table_394_def)

definition ts_parse_table_395 :: table_row where
  "ts_parse_table_395 = [
     (sym__bool_literal, STATE 2124), (sym__numeric_literal, STATE 2124),
     (sym_symbol_literal, STATE 2124), (sym_true, STATE 2120), (sym_false, STATE 2120),
     (sym_string_literal, STATE 2124), (sym__string_literal_double_quotes, STATE 1854),
     (sym__string_literal_single_quotes, STATE 1854),
     (sym__string_literal_double_quotes_multiple, STATE 1854),
     (sym__string_literal_single_quotes_multiple, STATE 1854),
     (sym__raw_string_literal_double_quotes, STATE 1854),
     (sym__raw_string_literal_single_quotes, STATE 1854),
     (sym__raw_string_literal_double_quotes_multiple, STATE 1854),
     (sym__raw_string_literal_single_quotes_multiple, STATE 1854),
     (sym_null_literal, STATE 2124), (sym_relational_operator, STATE 345),
     (sym_const_object_expression, STATE 2124), (sym_type_arguments, STATE 3171),
     (sym_switch_expression_case, STATE 3269), (sym__guarded_pattern, STATE 3408),
     (sym__pattern, STATE 2666), (sym__logical_or_pattern, STATE 2373),
     (sym__logical_and_pattern, STATE 2152), (sym__relational_pattern, STATE 2147),
     (sym__unary_pattern, STATE 2230), (sym__primary_pattern, STATE 2129),
     (sym_cast_pattern, STATE 2231), (sym_null_check_pattern, STATE 2231),
     (sym_null_assert_pattern, STATE 2231), (sym_constant_pattern, STATE 2102),
     (sym_variable_pattern, STATE 2102), (sym__parenthesized_pattern, STATE 2102),
     (sym_list_pattern, STATE 2102), (sym_map_pattern, STATE 2102),
     (sym_record_pattern, STATE 2102), (sym_object_pattern, STATE 2102), (sym__type, STATE 3547),
     (sym__type_not_function, STATE 1796), (sym__type_not_void_not_function, STATE 1896),
     (sym_function_type, STATE 1848), (aux_sym__function_type_tails, STATE 1605),
     (sym__function_type_tail, STATE 1704), (sym_record_type, STATE 1805),
     (sym__type_name, STATE 2156), (sym__final_var_or_type, STATE 3469),
     (sym_inferred_type, STATE 3547), (sym_qualified, STATE 2124),
     (sym__function_builtin_identifier, STATE 1463), (sym_final_builtin, STATE 2100),
     (sym_comment, STATE 395), (sym_documentation_comment, STATE 395),
     (aux_sym_string_literal_repeat1, STATE 1475), (sym_identifier, ACTIONS 967),
     (anon_sym_POUND, ACTIONS 850), (sym_decimal_integer_literal, ACTIONS 852),
     (sym_hex_integer_literal, ACTIONS 854), (sym_decimal_floating_point_literal, ACTIONS 852),
     (anon_sym_true, ACTIONS 856), (anon_sym_false, ACTIONS 858), (anon_sym_DQUOTE, ACTIONS 860),
     (anon_sym_SQUOTE, ACTIONS 862), (anon_sym_DQUOTE_DQUOTE_DQUOTE, ACTIONS 864),
     (anon_sym_SQUOTE_SQUOTE_SQUOTE, ACTIONS 866), (anon_sym_r_DQUOTE, ACTIONS 868),
     (anon_sym_r_SQUOTE, ACTIONS 870), (anon_sym_r_DQUOTE_DQUOTE_DQUOTE, ACTIONS 872),
     (anon_sym_r_SQUOTE_SQUOTE_SQUOTE, ACTIONS 874), (anon_sym_LBRACE, ACTIONS 876),
     (anon_sym_RBRACE, ACTIONS 1019), (anon_sym_LBRACK, ACTIONS 880),
     (anon_sym_null, ACTIONS 882), (anon_sym_LPAREN, ACTIONS 884),
     (sym_equality_operator, ACTIONS 396), (anon_sym_LT, ACTIONS 886),
     (anon_sym_GT, ACTIONS 400), (anon_sym_LT_EQ, ACTIONS 402), (anon_sym_GT_EQ, ACTIONS 402),
     (sym_minus_operator, ACTIONS 888), (anon_sym_final, ACTIONS 145),
     (sym_void_type, ACTIONS 33), (anon_sym_var, ACTIONS 35), (anon_sym_Function, ACTIONS 45),
     (sym_const_builtin, ACTIONS 894), (anon_sym_SLASH_SLASH, ACTIONS 3),
     (anon_sym_SLASH_STAR, ACTIONS 5), (anon_sym_SLASH_SLASH_SLASH, ACTIONS 7),
     (sym__block_comment, ACTIONS 9), (sym__documentation_block_comment, ACTIONS 11)]"

lemma row_ok_395: "table_row_ok 395 ts_parse_table_395"
  by (simp add: row_simps ts_parse_table_395_def)

definition ts_parse_table_396 :: table_row where
  "ts_parse_table_396 = [
     (sym__bool_literal, STATE 2124), (sym__numeric_literal, STATE 2124),
     (sym_symbol_literal, STATE 2124), (sym_true, STATE 2120), (sym_false, STATE 2120),
     (sym_string_literal, STATE 2124), (sym__string_literal_double_quotes, STATE 1854),
     (sym__string_literal_single_quotes, STATE 1854),
     (sym__string_literal_double_quotes_multiple, STATE 1854),
     (sym__string_literal_single_quotes_multiple, STATE 1854),
     (sym__raw_string_literal_double_quotes, STATE 1854),
     (sym__raw_string_literal_single_quotes, STATE 1854),
     (sym__raw_string_literal_double_quotes_multiple, STATE 1854),
     (sym__raw_string_literal_single_quotes_multiple, STATE 1854),
     (sym_null_literal, STATE 2124), (sym_relational_operator, STATE 345),
     (sym_const_object_expression, STATE 2124), (sym_type_arguments, STATE 3171),
     (sym__pattern, STATE 3014), (sym__logical_or_pattern, STATE 2373),
     (sym__logical_and_pattern, STATE 2152), (sym__relational_pattern, STATE 2147),
     (sym__unary_pattern, STATE 2230), (sym__primary_pattern, STATE 2129),
     (sym_cast_pattern, STATE 2231), (sym_null_check_pattern, STATE 2231),
     (sym_null_assert_pattern, STATE 2231), (sym_constant_pattern, STATE 2102),
     (sym_variable_pattern, STATE 2102), (sym__parenthesized_pattern, STATE 2102),
     (sym_list_pattern, STATE 2102), (sym_map_pattern, STATE 2102),
     (sym_record_pattern, STATE 2102), (sym__pattern_field, STATE 3184),
     (sym_object_pattern, STATE 2102), (sym__type, STATE 3547),
     (sym__type_not_function, STATE 1796), (sym__type_not_void_not_function, STATE 1896),
     (sym_function_type, STATE 1848), (aux_sym__function_type_tails, STATE 1605),
     (sym__function_type_tail, STATE 1704), (sym_record_type, STATE 1805),
     (sym__type_name, STATE 2156), (sym__final_var_or_type, STATE 3469),
     (sym_inferred_type, STATE 3547), (sym_qualified, STATE 2124),
     (sym__function_builtin_identifier, STATE 1463), (sym_final_builtin, STATE 2100),
     (sym_comment, STATE 396), (sym_documentation_comment, STATE 396),
     (aux_sym_string_literal_repeat1, STATE 1475), (sym_identifier, ACTIONS 997),
     (anon_sym_POUND, ACTIONS 850), (sym_decimal_integer_literal, ACTIONS 852),
     (sym_hex_integer_literal, ACTIONS 854), (sym_decimal_floating_point_literal, ACTIONS 852),
     (anon_sym_true, ACTIONS 856), (anon_sym_false, ACTIONS 858), (anon_sym_DQUOTE, ACTIONS 860),
     (anon_sym_SQUOTE, ACTIONS 862), (anon_sym_DQUOTE_DQUOTE_DQUOTE, ACTIONS 864),
     (anon_sym_SQUOTE_SQUOTE_SQUOTE, ACTIONS 866), (anon_sym_r_DQUOTE, ACTIONS 868),
     (anon_sym_r_SQUOTE, ACTIONS 870), (anon_sym_r_DQUOTE_DQUOTE_DQUOTE, ACTIONS 872),
     (anon_sym_r_SQUOTE_SQUOTE_SQUOTE, ACTIONS 874), (anon_sym_LBRACE, ACTIONS 876),
     (anon_sym_LBRACK, ACTIONS 880), (anon_sym_COLON, ACTIONS 428), (anon_sym_null, ACTIONS 882),
     (anon_sym_LPAREN, ACTIONS 884), (anon_sym_RPAREN, ACTIONS 1021),
     (sym_equality_operator, ACTIONS 396), (anon_sym_LT, ACTIONS 886),
     (anon_sym_GT, ACTIONS 400), (anon_sym_LT_EQ, ACTIONS 402), (anon_sym_GT_EQ, ACTIONS 402),
     (sym_minus_operator, ACTIONS 888), (anon_sym_final, ACTIONS 145),
     (sym_void_type, ACTIONS 33), (anon_sym_var, ACTIONS 35), (anon_sym_Function, ACTIONS 45),
     (sym_const_builtin, ACTIONS 894), (anon_sym_SLASH_SLASH, ACTIONS 3),
     (anon_sym_SLASH_STAR, ACTIONS 5), (anon_sym_SLASH_SLASH_SLASH, ACTIONS 7),
     (sym__block_comment, ACTIONS 9), (sym__documentation_block_comment, ACTIONS 11)]"

lemma row_ok_396: "table_row_ok 396 ts_parse_table_396"
  by (simp add: row_simps ts_parse_table_396_def)

definition ts_parse_table_397 :: table_row where
  "ts_parse_table_397 = [
     (sym__bool_literal, STATE 2124), (sym__numeric_literal, STATE 2124),
     (sym_symbol_literal, STATE 2124), (sym_true, STATE 2120), (sym_false, STATE 2120),
     (sym_string_literal, STATE 2124), (sym__string_literal_double_quotes, STATE 1854),
     (sym__string_literal_single_quotes, STATE 1854),
     (sym__string_literal_double_quotes_multiple, STATE 1854),
     (sym__string_literal_single_quotes_multiple, STATE 1854),
     (sym__raw_string_literal_double_quotes, STATE 1854),
     (sym__raw_string_literal_single_quotes, STATE 1854),
     (sym__raw_string_literal_double_quotes_multiple, STATE 1854),
     (sym__raw_string_literal_single_quotes_multiple, STATE 1854),
     (sym_null_literal, STATE 2124), (sym_relational_operator, STATE 345),
     (sym_const_object_expression, STATE 2124), (sym_type_arguments, STATE 3171),
     (sym_switch_expression_case, STATE 3269), (sym__guarded_pattern, STATE 3408),
     (sym__pattern, STATE 2666), (sym__logical_or_pattern, STATE 2373),
     (sym__logical_and_pattern, STATE 2152), (sym__relational_pattern, STATE 2147),
     (sym__unary_pattern, STATE 2230), (sym__primary_pattern, STATE 2129),
     (sym_cast_pattern, STATE 2231), (sym_null_check_pattern, STATE 2231),
     (sym_null_assert_pattern, STATE 2231), (sym_constant_pattern, STATE 2102),
     (sym_variable_pattern, STATE 2102), (sym__parenthesized_pattern, STATE 2102),
     (sym_list_pattern, STATE 2102), (sym_map_pattern, STATE 2102),
     (sym_record_pattern, STATE 2102), (sym_object_pattern, STATE 2102), (sym__type, STATE 3547),
     (sym__type_not_function, STATE 1796), (sym__type_not_void_not_function, STATE 1896),
     (sym_function_type, STATE 1848), (aux_sym__function_type_tails, STATE 1605),
     (sym__function_type_tail, STATE 1704), (sym_record_type, STATE 1805),
     (sym__type_name, STATE 2156), (sym__final_var_or_type, STATE 3469),
     (sym_inferred_type, STATE 3547), (sym_qualified, STATE 2124),
     (sym__function_builtin_identifier, STATE 1463), (sym_final_builtin, STATE 2100),
     (sym_comment, STATE 397), (sym_documentation_comment, STATE 397),
     (aux_sym_string_literal_repeat1, STATE 1475), (sym_identifier, ACTIONS 967),
     (anon_sym_POUND, ACTIONS 850), (sym_decimal_integer_literal, ACTIONS 852),
     (sym_hex_integer_literal, ACTIONS 854), (sym_decimal_floating_point_literal, ACTIONS 852),
     (anon_sym_true, ACTIONS 856), (anon_sym_false, ACTIONS 858), (anon_sym_DQUOTE, ACTIONS 860),
     (anon_sym_SQUOTE, ACTIONS 862), (anon_sym_DQUOTE_DQUOTE_DQUOTE, ACTIONS 864),
     (anon_sym_SQUOTE_SQUOTE_SQUOTE, ACTIONS 866), (anon_sym_r_DQUOTE, ACTIONS 868),
     (anon_sym_r_SQUOTE, ACTIONS 870), (anon_sym_r_DQUOTE_DQUOTE_DQUOTE, ACTIONS 872),
     (anon_sym_r_SQUOTE_SQUOTE_SQUOTE, ACTIONS 874), (anon_sym_LBRACE, ACTIONS 876),
     (anon_sym_RBRACE, ACTIONS 1023), (anon_sym_LBRACK, ACTIONS 880),
     (anon_sym_null, ACTIONS 882), (anon_sym_LPAREN, ACTIONS 884),
     (sym_equality_operator, ACTIONS 396), (anon_sym_LT, ACTIONS 886),
     (anon_sym_GT, ACTIONS 400), (anon_sym_LT_EQ, ACTIONS 402), (anon_sym_GT_EQ, ACTIONS 402),
     (sym_minus_operator, ACTIONS 888), (anon_sym_final, ACTIONS 145),
     (sym_void_type, ACTIONS 33), (anon_sym_var, ACTIONS 35), (anon_sym_Function, ACTIONS 45),
     (sym_const_builtin, ACTIONS 894), (anon_sym_SLASH_SLASH, ACTIONS 3),
     (anon_sym_SLASH_STAR, ACTIONS 5), (anon_sym_SLASH_SLASH_SLASH, ACTIONS 7),
     (sym__block_comment, ACTIONS 9), (sym__documentation_block_comment, ACTIONS 11)]"

lemma row_ok_397: "table_row_ok 397 ts_parse_table_397"
  by (simp add: row_simps ts_parse_table_397_def)

definition ts_parse_table_398 :: table_row where
  "ts_parse_table_398 = [
     (sym__bool_literal, STATE 2124), (sym__numeric_literal, STATE 2124),
     (sym_symbol_literal, STATE 2124), (sym_true, STATE 2120), (sym_false, STATE 2120),
     (sym_string_literal, STATE 2124), (sym__string_literal_double_quotes, STATE 1854),
     (sym__string_literal_single_quotes, STATE 1854),
     (sym__string_literal_double_quotes_multiple, STATE 1854),
     (sym__string_literal_single_quotes_multiple, STATE 1854),
     (sym__raw_string_literal_double_quotes, STATE 1854),
     (sym__raw_string_literal_single_quotes, STATE 1854),
     (sym__raw_string_literal_double_quotes_multiple, STATE 1854),
     (sym__raw_string_literal_single_quotes_multiple, STATE 1854),
     (sym_null_literal, STATE 2124), (sym_relational_operator, STATE 345),
     (sym_const_object_expression, STATE 2124), (sym_type_arguments, STATE 3171),
     (sym__pattern, STATE 3014), (sym__logical_or_pattern, STATE 2373),
     (sym__logical_and_pattern, STATE 2152), (sym__relational_pattern, STATE 2147),
     (sym__unary_pattern, STATE 2230), (sym__primary_pattern, STATE 2129),
     (sym_cast_pattern, STATE 2231), (sym_null_check_pattern, STATE 2231),
     (sym_null_assert_pattern, STATE 2231), (sym_constant_pattern, STATE 2102),
     (sym_variable_pattern, STATE 2102), (sym__parenthesized_pattern, STATE 2102),
     (sym_list_pattern, STATE 2102), (sym_map_pattern, STATE 2102),
     (sym_record_pattern, STATE 2102), (sym__pattern_field, STATE 2877),
     (sym_object_pattern, STATE 2102), (sym__type, STATE 3547),
     (sym__type_not_function, STATE 1796), (sym__type_not_void_not_function, STATE 1896),
     (sym_function_type, STATE 1848), (aux_sym__function_type_tails, STATE 1605),
     (sym__function_type_tail, STATE 1704), (sym_record_type, STATE 1805),
     (sym__type_name, STATE 2156), (sym__final_var_or_type, STATE 3469),
     (sym_inferred_type, STATE 3547), (sym_qualified, STATE 2124),
     (sym__function_builtin_identifier, STATE 1463), (sym_final_builtin, STATE 2100),
     (sym_comment, STATE 398), (sym_documentation_comment, STATE 398),
     (aux_sym_string_literal_repeat1, STATE 1475), (sym_identifier, ACTIONS 997),
     (anon_sym_POUND, ACTIONS 850), (sym_decimal_integer_literal, ACTIONS 852),
     (sym_hex_integer_literal, ACTIONS 854), (sym_decimal_floating_point_literal, ACTIONS 852),
     (anon_sym_true, ACTIONS 856), (anon_sym_false, ACTIONS 858), (anon_sym_DQUOTE, ACTIONS 860),
     (anon_sym_SQUOTE, ACTIONS 862), (anon_sym_DQUOTE_DQUOTE_DQUOTE, ACTIONS 864),
     (anon_sym_SQUOTE_SQUOTE_SQUOTE, ACTIONS 866), (anon_sym_r_DQUOTE, ACTIONS 868),
     (anon_sym_r_SQUOTE, ACTIONS 870), (anon_sym_r_DQUOTE_DQUOTE_DQUOTE, ACTIONS 872),
     (anon_sym_r_SQUOTE_SQUOTE_SQUOTE, ACTIONS 874), (anon_sym_LBRACE, ACTIONS 876),
     (anon_sym_LBRACK, ACTIONS 880), (anon_sym_COLON, ACTIONS 428), (anon_sym_null, ACTIONS 882),
     (anon_sym_LPAREN, ACTIONS 884), (sym_equality_operator, ACTIONS 396),
     (anon_sym_LT, ACTIONS 886), (anon_sym_GT, ACTIONS 400), (anon_sym_LT_EQ, ACTIONS 402),
     (anon_sym_GT_EQ, ACTIONS 402), (sym_minus_operator, ACTIONS 888),
     (anon_sym_final, ACTIONS 145), (sym_void_type, ACTIONS 33), (anon_sym_var, ACTIONS 35),
     (anon_sym_Function, ACTIONS 45), (sym_const_builtin, ACTIONS 894),
     (anon_sym_SLASH_SLASH, ACTIONS 3), (anon_sym_SLASH_STAR, ACTIONS 5),
     (anon_sym_SLASH_SLASH_SLASH, ACTIONS 7), (sym__block_comment, ACTIONS 9),
     (sym__documentation_block_comment, ACTIONS 11)]"

lemma row_ok_398: "table_row_ok 398 ts_parse_table_398"
  by (simp add: row_simps ts_parse_table_398_def)

definition ts_parse_table_399 :: table_row where
  "ts_parse_table_399 = [
     (sym__bool_literal, STATE 2124), (sym__numeric_literal, STATE 2124),
     (sym_symbol_literal, STATE 2124), (sym_true, STATE 2120), (sym_false, STATE 2120),
     (sym_string_literal, STATE 2124), (sym__string_literal_double_quotes, STATE 1854),
     (sym__string_literal_single_quotes, STATE 1854),
     (sym__string_literal_double_quotes_multiple, STATE 1854),
     (sym__string_literal_single_quotes_multiple, STATE 1854),
     (sym__raw_string_literal_double_quotes, STATE 1854),
     (sym__raw_string_literal_single_quotes, STATE 1854),
     (sym__raw_string_literal_double_quotes_multiple, STATE 1854),
     (sym__raw_string_literal_single_quotes_multiple, STATE 1854),
     (sym_null_literal, STATE 2124), (sym_relational_operator, STATE 345),
     (sym_const_object_expression, STATE 2124), (sym_type_arguments, STATE 3171),
     (sym_switch_expression_case, STATE 2925), (sym__guarded_pattern, STATE 3408),
     (sym__pattern, STATE 2666), (sym__logical_or_pattern, STATE 2373),
     (sym__logical_and_pattern, STATE 2152), (sym__relational_pattern, STATE 2147),
     (sym__unary_pattern, STATE 2230), (sym__primary_pattern, STATE 2129),
     (sym_cast_pattern, STATE 2231), (sym_null_check_pattern, STATE 2231),
     (sym_null_assert_pattern, STATE 2231), (sym_constant_pattern, STATE 2102),
     (sym_variable_pattern, STATE 2102), (sym__parenthesized_pattern, STATE 2102),
     (sym_list_pattern, STATE 2102), (sym_map_pattern, STATE 2102),
     (sym_record_pattern, STATE 2102), (sym_object_pattern, STATE 2102), (sym__type, STATE 3547),
     (sym__type_not_function, STATE 1796), (sym__type_not_void_not_function, STATE 1896),
     (sym_function_type, STATE 1848), (aux_sym__function_type_tails, STATE 1605),
     (sym__function_type_tail, STATE 1704), (sym_record_type, STATE 1805),
     (sym__type_name, STATE 2156), (sym__final_var_or_type, STATE 3469),
     (sym_inferred_type, STATE 3547), (sym_qualified, STATE 2124),
     (sym__function_builtin_identifier, STATE 1463), (sym_final_builtin, STATE 2100),
     (sym_comment, STATE 399), (sym_documentation_comment, STATE 399),
     (aux_sym_string_literal_repeat1, STATE 1475), (sym_identifier, ACTIONS 967),
     (anon_sym_POUND, ACTIONS 850), (sym_decimal_integer_literal, ACTIONS 852),
     (sym_hex_integer_literal, ACTIONS 854), (sym_decimal_floating_point_literal, ACTIONS 852),
     (anon_sym_true, ACTIONS 856), (anon_sym_false, ACTIONS 858), (anon_sym_DQUOTE, ACTIONS 860),
     (anon_sym_SQUOTE, ACTIONS 862), (anon_sym_DQUOTE_DQUOTE_DQUOTE, ACTIONS 864),
     (anon_sym_SQUOTE_SQUOTE_SQUOTE, ACTIONS 866), (anon_sym_r_DQUOTE, ACTIONS 868),
     (anon_sym_r_SQUOTE, ACTIONS 870), (anon_sym_r_DQUOTE_DQUOTE_DQUOTE, ACTIONS 872),
     (anon_sym_r_SQUOTE_SQUOTE_SQUOTE, ACTIONS 874), (anon_sym_LBRACE, ACTIONS 876),
     (anon_sym_LBRACK, ACTIONS 880), (anon_sym_null, ACTIONS 882),
     (anon_sym_LPAREN, ACTIONS 884), (sym_equality_operator, ACTIONS 396),
     (anon_sym_LT, ACTIONS 886), (anon_sym_GT, ACTIONS 400), (anon_sym_LT_EQ, ACTIONS 402),
     (anon_sym_GT_EQ, ACTIONS 402), (sym_minus_operator, ACTIONS 888),
     (anon_sym_final, ACTIONS 145), (sym_void_type, ACTIONS 33), (anon_sym_var, ACTIONS 35),
     (anon_sym_Function, ACTIONS 45), (sym_const_builtin, ACTIONS 894),
     (anon_sym_SLASH_SLASH, ACTIONS 3), (anon_sym_SLASH_STAR, ACTIONS 5),
     (anon_sym_SLASH_SLASH_SLASH, ACTIONS 7), (sym__block_comment, ACTIONS 9),
     (sym__documentation_block_comment, ACTIONS 11)]"

lemma row_ok_399: "table_row_ok 399 ts_parse_table_399"
  by (simp add: row_simps ts_parse_table_399_def)

definition ts_parse_table_400 :: table_row where
  "ts_parse_table_400 = [
     (sym__bool_literal, STATE 2124), (sym__numeric_literal, STATE 2124),
     (sym_symbol_literal, STATE 2124), (sym_true, STATE 2120), (sym_false, STATE 2120),
     (sym_string_literal, STATE 2124), (sym__string_literal_double_quotes, STATE 1854),
     (sym__string_literal_single_quotes, STATE 1854),
     (sym__string_literal_double_quotes_multiple, STATE 1854),
     (sym__string_literal_single_quotes_multiple, STATE 1854),
     (sym__raw_string_literal_double_quotes, STATE 1854),
     (sym__raw_string_literal_single_quotes, STATE 1854),
     (sym__raw_string_literal_double_quotes_multiple, STATE 1854),
     (sym__raw_string_literal_single_quotes_multiple, STATE 1854),
     (sym_null_literal, STATE 2124), (sym_relational_operator, STATE 345),
     (sym_const_object_expression, STATE 2124), (sym_type_arguments, STATE 3171),
     (sym_switch_expression_case, STATE 2904), (sym__guarded_pattern, STATE 3408),
     (sym__pattern, STATE 2666), (sym__logical_or_pattern, STATE 2373),
     (sym__logical_and_pattern, STATE 2152), (sym__relational_pattern, STATE 2147),
     (sym__unary_pattern, STATE 2230), (sym__primary_pattern, STATE 2129),
     (sym_cast_pattern, STATE 2231), (sym_null_check_pattern, STATE 2231),
     (sym_null_assert_pattern, STATE 2231), (sym_constant_pattern, STATE 2102),
     (sym_variable_pattern, STATE 2102), (sym__parenthesized_pattern, STATE 2102),
     (sym_list_pattern, STATE 2102), (sym_map_pattern, STATE 2102),
     (sym_record_pattern, STATE 2102), (sym_object_pattern, STATE 2102), (sym__type, STATE 3547),
     (sym__type_not_function, STATE 1796), (sym__type_not_void_not_function, STATE 1896),
     (sym_function_type, STATE 1848), (aux_sym__function_type_tails, STATE 1605),
     (sym__function_type_tail, STATE 1704), (sym_record_type, STATE 1805),
     (sym__type_name, STATE 2156), (sym__final_var_or_type, STATE 3469),
     (sym_inferred_type, STATE 3547), (sym_qualified, STATE 2124),
     (sym__function_builtin_identifier, STATE 1463), (sym_final_builtin, STATE 2100),
     (sym_comment, STATE 400), (sym_documentation_comment, STATE 400),
     (aux_sym_string_literal_repeat1, STATE 1475), (sym_identifier, ACTIONS 967),
     (anon_sym_POUND, ACTIONS 850), (sym_decimal_integer_literal, ACTIONS 852),
     (sym_hex_integer_literal, ACTIONS 854), (sym_decimal_floating_point_literal, ACTIONS 852),
     (anon_sym_true, ACTIONS 856), (anon_sym_false, ACTIONS 858), (anon_sym_DQUOTE, ACTIONS 860),
     (anon_sym_SQUOTE, ACTIONS 862), (anon_sym_DQUOTE_DQUOTE_DQUOTE, ACTIONS 864),
     (anon_sym_SQUOTE_SQUOTE_SQUOTE, ACTIONS 866), (anon_sym_r_DQUOTE, ACTIONS 868),
     (anon_sym_r_SQUOTE, ACTIONS 870), (anon_sym_r_DQUOTE_DQUOTE_DQUOTE, ACTIONS 872),
     (anon_sym_r_SQUOTE_SQUOTE_SQUOTE, ACTIONS 874), (anon_sym_LBRACE, ACTIONS 876),
     (anon_sym_LBRACK, ACTIONS 880), (anon_sym_null, ACTIONS 882),
     (anon_sym_LPAREN, ACTIONS 884), (sym_equality_operator, ACTIONS 396),
     (anon_sym_LT, ACTIONS 886), (anon_sym_GT, ACTIONS 400), (anon_sym_LT_EQ, ACTIONS 402),
     (anon_sym_GT_EQ, ACTIONS 402), (sym_minus_operator, ACTIONS 888),
     (anon_sym_final, ACTIONS 145), (sym_void_type, ACTIONS 33), (anon_sym_var, ACTIONS 35),
     (anon_sym_Function, ACTIONS 45), (sym_const_builtin, ACTIONS 894),
     (anon_sym_SLASH_SLASH, ACTIONS 3), (anon_sym_SLASH_STAR, ACTIONS 5),
     (anon_sym_SLASH_SLASH_SLASH, ACTIONS 7), (sym__block_comment, ACTIONS 9),
     (sym__documentation_block_comment, ACTIONS 11)]"

lemma row_ok_400: "table_row_ok 400 ts_parse_table_400"
  by (simp add: row_simps ts_parse_table_400_def)

definition ts_parse_table_401 :: table_row where
  "ts_parse_table_401 = [
     (sym__bool_literal, STATE 2124), (sym__numeric_literal, STATE 2124),
     (sym_symbol_literal, STATE 2124), (sym_true, STATE 2120), (sym_false, STATE 2120),
     (sym_string_literal, STATE 2124), (sym__string_literal_double_quotes, STATE 1854),
     (sym__string_literal_single_quotes, STATE 1854),
     (sym__string_literal_double_quotes_multiple, STATE 1854),
     (sym__string_literal_single_quotes_multiple, STATE 1854),
     (sym__raw_string_literal_double_quotes, STATE 1854),
     (sym__raw_string_literal_single_quotes, STATE 1854),
     (sym__raw_string_literal_double_quotes_multiple, STATE 1854),
     (sym__raw_string_literal_single_quotes_multiple, STATE 1854),
     (sym_null_literal, STATE 2124), (sym_relational_operator, STATE 345),
     (sym_const_object_expression, STATE 2124), (sym_type_arguments, STATE 3171),
     (sym_switch_expression_case, STATE 2681), (sym__guarded_pattern, STATE 3408),
     (sym__pattern, STATE 2666), (sym__logical_or_pattern, STATE 2373),
     (sym__logical_and_pattern, STATE 2152), (sym__relational_pattern, STATE 2147),
     (sym__unary_pattern, STATE 2230), (sym__primary_pattern, STATE 2129),
     (sym_cast_pattern, STATE 2231), (sym_null_check_pattern, STATE 2231),
     (sym_null_assert_pattern, STATE 2231), (sym_constant_pattern, STATE 2102),
     (sym_variable_pattern, STATE 2102), (sym__parenthesized_pattern, STATE 2102),
     (sym_list_pattern, STATE 2102), (sym_map_pattern, STATE 2102),
     (sym_record_pattern, STATE 2102), (sym_object_pattern, STATE 2102), (sym__type, STATE 3547),
     (sym__type_not_function, STATE 1796), (sym__type_not_void_not_function, STATE 1896),
     (sym_function_type, STATE 1848), (aux_sym__function_type_tails, STATE 1605),
     (sym__function_type_tail, STATE 1704), (sym_record_type, STATE 1805),
     (sym__type_name, STATE 2156), (sym__final_var_or_type, STATE 3469),
     (sym_inferred_type, STATE 3547), (sym_qualified, STATE 2124),
     (sym__function_builtin_identifier, STATE 1463), (sym_final_builtin, STATE 2100),
     (sym_comment, STATE 401), (sym_documentation_comment, STATE 401),
     (aux_sym_string_literal_repeat1, STATE 1475), (sym_identifier, ACTIONS 967),
     (anon_sym_POUND, ACTIONS 850), (sym_decimal_integer_literal, ACTIONS 852),
     (sym_hex_integer_literal, ACTIONS 854), (sym_decimal_floating_point_literal, ACTIONS 852),
     (anon_sym_true, ACTIONS 856), (anon_sym_false, ACTIONS 858), (anon_sym_DQUOTE, ACTIONS 860),
     (anon_sym_SQUOTE, ACTIONS 862), (anon_sym_DQUOTE_DQUOTE_DQUOTE, ACTIONS 864),
     (anon_sym_SQUOTE_SQUOTE_SQUOTE, ACTIONS 866), (anon_sym_r_DQUOTE, ACTIONS 868),
     (anon_sym_r_SQUOTE, ACTIONS 870), (anon_sym_r_DQUOTE_DQUOTE_DQUOTE, ACTIONS 872),
     (anon_sym_r_SQUOTE_SQUOTE_SQUOTE, ACTIONS 874), (anon_sym_LBRACE, ACTIONS 876),
     (anon_sym_LBRACK, ACTIONS 880), (anon_sym_null, ACTIONS 882),
     (anon_sym_LPAREN, ACTIONS 884), (sym_equality_operator, ACTIONS 396),
     (anon_sym_LT, ACTIONS 886), (anon_sym_GT, ACTIONS 400), (anon_sym_LT_EQ, ACTIONS 402),
     (anon_sym_GT_EQ, ACTIONS 402), (sym_minus_operator, ACTIONS 888),
     (anon_sym_final, ACTIONS 145), (sym_void_type, ACTIONS 33), (anon_sym_var, ACTIONS 35),
     (anon_sym_Function, ACTIONS 45), (sym_const_builtin, ACTIONS 894),
     (anon_sym_SLASH_SLASH, ACTIONS 3), (anon_sym_SLASH_STAR, ACTIONS 5),
     (anon_sym_SLASH_SLASH_SLASH, ACTIONS 7), (sym__block_comment, ACTIONS 9),
     (sym__documentation_block_comment, ACTIONS 11)]"

lemma row_ok_401: "table_row_ok 401 ts_parse_table_401"
  by (simp add: row_simps ts_parse_table_401_def)

definition ts_parse_table_402 :: table_row where
  "ts_parse_table_402 = [
     (sym__bool_literal, STATE 2124), (sym__numeric_literal, STATE 2124),
     (sym_symbol_literal, STATE 2124), (sym_true, STATE 2120), (sym_false, STATE 2120),
     (sym_string_literal, STATE 2124), (sym__string_literal_double_quotes, STATE 1854),
     (sym__string_literal_single_quotes, STATE 1854),
     (sym__string_literal_double_quotes_multiple, STATE 1854),
     (sym__string_literal_single_quotes_multiple, STATE 1854),
     (sym__raw_string_literal_double_quotes, STATE 1854),
     (sym__raw_string_literal_single_quotes, STATE 1854),
     (sym__raw_string_literal_double_quotes_multiple, STATE 1854),
     (sym__raw_string_literal_single_quotes_multiple, STATE 1854),
     (sym_null_literal, STATE 2124), (sym_relational_operator, STATE 345),
     (sym_const_object_expression, STATE 2124), (sym_type_arguments, STATE 3171),
     (sym__pattern, STATE 3014), (sym__logical_or_pattern, STATE 2373),
     (sym__logical_and_pattern, STATE 2152), (sym__relational_pattern, STATE 2147),
     (sym__unary_pattern, STATE 2230), (sym__primary_pattern, STATE 2129),
     (sym_cast_pattern, STATE 2231), (sym_null_check_pattern, STATE 2231),
     (sym_null_assert_pattern, STATE 2231), (sym_constant_pattern, STATE 2102),
     (sym_variable_pattern, STATE 2102), (sym__parenthesized_pattern, STATE 2102),
     (sym_list_pattern, STATE 2102), (sym_map_pattern, STATE 2102),
     (sym_record_pattern, STATE 2102), (sym__pattern_field, STATE 2980),
     (sym_object_pattern, STATE 2102), (sym__type, STATE 3547),
     (sym__type_not_function, STATE 1796), (sym__type_not_void_not_function, STATE 1896),
     (sym_function_type, STATE 1848), (aux_sym__function_type_tails, STATE 1605),
     (sym__function_type_tail, STATE 1704), (sym_record_type, STATE 1805),
     (sym__type_name, STATE 2156), (sym__final_var_or_type, STATE 3469),
     (sym_inferred_type, STATE 3547), (sym_qualified, STATE 2124),
     (sym__function_builtin_identifier, STATE 1463), (sym_final_builtin, STATE 2100),
     (sym_comment, STATE 402), (sym_documentation_comment, STATE 402),
     (aux_sym_string_literal_repeat1, STATE 1475), (sym_identifier, ACTIONS 997),
     (anon_sym_POUND, ACTIONS 850), (sym_decimal_integer_literal, ACTIONS 852),
     (sym_hex_integer_literal, ACTIONS 854), (sym_decimal_floating_point_literal, ACTIONS 852),
     (anon_sym_true, ACTIONS 856), (anon_sym_false, ACTIONS 858), (anon_sym_DQUOTE, ACTIONS 860),
     (anon_sym_SQUOTE, ACTIONS 862), (anon_sym_DQUOTE_DQUOTE_DQUOTE, ACTIONS 864),
     (anon_sym_SQUOTE_SQUOTE_SQUOTE, ACTIONS 866), (anon_sym_r_DQUOTE, ACTIONS 868),
     (anon_sym_r_SQUOTE, ACTIONS 870), (anon_sym_r_DQUOTE_DQUOTE_DQUOTE, ACTIONS 872),
     (anon_sym_r_SQUOTE_SQUOTE_SQUOTE, ACTIONS 874), (anon_sym_LBRACE, ACTIONS 876),
     (anon_sym_LBRACK, ACTIONS 880), (anon_sym_COLON, ACTIONS 428), (anon_sym_null, ACTIONS 882),
     (anon_sym_LPAREN, ACTIONS 884), (sym_equality_operator, ACTIONS 396),
     (anon_sym_LT, ACTIONS 886), (anon_sym_GT, ACTIONS 400), (anon_sym_LT_EQ, ACTIONS 402),
     (anon_sym_GT_EQ, ACTIONS 402), (sym_minus_operator, ACTIONS 888),
     (anon_sym_final, ACTIONS 145), (sym_void_type, ACTIONS 33), (anon_sym_var, ACTIONS 35),
     (anon_sym_Function, ACTIONS 45), (sym_const_builtin, ACTIONS 894),
     (anon_sym_SLASH_SLASH, ACTIONS 3), (anon_sym_SLASH_STAR, ACTIONS 5),
     (anon_sym_SLASH_SLASH_SLASH, ACTIONS 7), (sym__block_comment, ACTIONS 9),
     (sym__documentation_block_comment, ACTIONS 11)]"

lemma row_ok_402: "table_row_ok 402 ts_parse_table_402"
  by (simp add: row_simps ts_parse_table_402_def)

definition ts_parse_table_403 :: table_row where
  "ts_parse_table_403 = [
     (sym__bool_literal, STATE 2124), (sym__numeric_literal, STATE 2124),
     (sym_symbol_literal, STATE 2124), (sym_true, STATE 2120), (sym_false, STATE 2120),
     (sym_string_literal, STATE 2124), (sym__string_literal_double_quotes, STATE 1854),
     (sym__string_literal_single_quotes, STATE 1854),
     (sym__string_literal_double_quotes_multiple, STATE 1854),
     (sym__string_literal_single_quotes_multiple, STATE 1854),
     (sym__raw_string_literal_double_quotes, STATE 1854),
     (sym__raw_string_literal_single_quotes, STATE 1854),
     (sym__raw_string_literal_double_quotes_multiple, STATE 1854),
     (sym__raw_string_literal_single_quotes_multiple, STATE 1854),
     (sym_null_literal, STATE 2124), (sym_relational_operator, STATE 345),
     (sym_const_object_expression, STATE 2124), (sym_type_arguments, STATE 3171),
     (sym__pattern, STATE 3168), (sym__logical_or_pattern, STATE 2373),
     (sym__logical_and_pattern, STATE 2152), (sym__relational_pattern, STATE 2147),
     (sym__unary_pattern, STATE 2230), (sym__primary_pattern, STATE 2129),
     (sym_cast_pattern, STATE 2231), (sym_null_check_pattern, STATE 2231),
     (sym_null_assert_pattern, STATE 2231), (sym_constant_pattern, STATE 2102),
     (sym_variable_pattern, STATE 2102), (sym__parenthesized_pattern, STATE 2102),
     (sym_list_pattern, STATE 2102), (sym_map_pattern, STATE 2102),
     (sym_record_pattern, STATE 2102), (sym_object_pattern, STATE 2102), (sym__type, STATE 3547),
     (sym__type_not_function, STATE 1796), (sym__type_not_void_not_function, STATE 1896),
     (sym_function_type, STATE 1848), (aux_sym__function_type_tails, STATE 1605),
     (sym__function_type_tail, STATE 1704), (sym_record_type, STATE 1805),
     (sym__type_name, STATE 2156), (sym__final_var_or_type, STATE 3469),
     (sym_inferred_type, STATE 3547), (sym_qualified, STATE 2124),
     (sym__function_builtin_identifier, STATE 1463), (sym_final_builtin, STATE 2100),
     (sym_comment, STATE 403), (sym_documentation_comment, STATE 403),
     (aux_sym_string_literal_repeat1, STATE 1475), (sym_identifier, ACTIONS 967),
     (anon_sym_POUND, ACTIONS 850), (sym_decimal_integer_literal, ACTIONS 852),
     (sym_hex_integer_literal, ACTIONS 854), (sym_decimal_floating_point_literal, ACTIONS 852),
     (anon_sym_true, ACTIONS 856), (anon_sym_false, ACTIONS 858), (anon_sym_DQUOTE, ACTIONS 860),
     (anon_sym_SQUOTE, ACTIONS 862), (anon_sym_DQUOTE_DQUOTE_DQUOTE, ACTIONS 864),
     (anon_sym_SQUOTE_SQUOTE_SQUOTE, ACTIONS 866), (anon_sym_r_DQUOTE, ACTIONS 868),
     (anon_sym_r_SQUOTE, ACTIONS 870), (anon_sym_r_DQUOTE_DQUOTE_DQUOTE, ACTIONS 872),
     (anon_sym_r_SQUOTE_SQUOTE_SQUOTE, ACTIONS 874), (anon_sym_LBRACE, ACTIONS 876),
     (anon_sym_LBRACK, ACTIONS 880), (anon_sym_COMMA, ACTIONS 468),
     (anon_sym_RBRACK, ACTIONS 468), (anon_sym_null, ACTIONS 882),
     (anon_sym_LPAREN, ACTIONS 884), (sym_equality_operator, ACTIONS 396),
     (anon_sym_LT, ACTIONS 886), (anon_sym_GT, ACTIONS 400), (anon_sym_LT_EQ, ACTIONS 402),
     (anon_sym_GT_EQ, ACTIONS 402), (sym_minus_operator, ACTIONS 888),
     (anon_sym_final, ACTIONS 145), (sym_void_type, ACTIONS 33), (anon_sym_var, ACTIONS 35),
     (anon_sym_Function, ACTIONS 45), (sym_const_builtin, ACTIONS 894),
     (anon_sym_SLASH_SLASH, ACTIONS 3), (anon_sym_SLASH_STAR, ACTIONS 5),
     (anon_sym_SLASH_SLASH_SLASH, ACTIONS 7), (sym__block_comment, ACTIONS 9),
     (sym__documentation_block_comment, ACTIONS 11)]"

lemma row_ok_403: "table_row_ok 403 ts_parse_table_403"
  by (simp add: row_simps ts_parse_table_403_def)

definition ts_parse_table_rows_7 :: "(TSStateId \<times> table_row) list" where
  "ts_parse_table_rows_7 = [
     (331, ts_parse_table_331), (332, ts_parse_table_332), (333, ts_parse_table_333),
     (334, ts_parse_table_334), (335, ts_parse_table_335), (336, ts_parse_table_336),
     (337, ts_parse_table_337), (338, ts_parse_table_338), (339, ts_parse_table_339),
     (340, ts_parse_table_340), (341, ts_parse_table_341), (342, ts_parse_table_342),
     (343, ts_parse_table_343), (344, ts_parse_table_344), (345, ts_parse_table_345),
     (346, ts_parse_table_346), (347, ts_parse_table_347), (348, ts_parse_table_348),
     (349, ts_parse_table_349), (350, ts_parse_table_350), (351, ts_parse_table_351),
     (352, ts_parse_table_352), (353, ts_parse_table_353), (354, ts_parse_table_354),
     (355, ts_parse_table_355), (356, ts_parse_table_356), (357, ts_parse_table_357),
     (358, ts_parse_table_358), (359, ts_parse_table_359), (360, ts_parse_table_360),
     (361, ts_parse_table_361), (362, ts_parse_table_362), (363, ts_parse_table_363),
     (364, ts_parse_table_364), (365, ts_parse_table_365), (366, ts_parse_table_366),
     (367, ts_parse_table_367), (368, ts_parse_table_368), (369, ts_parse_table_369),
     (370, ts_parse_table_370), (371, ts_parse_table_371), (372, ts_parse_table_372),
     (373, ts_parse_table_373), (374, ts_parse_table_374), (375, ts_parse_table_375),
     (376, ts_parse_table_376), (377, ts_parse_table_377), (378, ts_parse_table_378),
     (379, ts_parse_table_379), (380, ts_parse_table_380), (381, ts_parse_table_381),
     (382, ts_parse_table_382), (383, ts_parse_table_383), (384, ts_parse_table_384),
     (385, ts_parse_table_385), (386, ts_parse_table_386), (387, ts_parse_table_387),
     (388, ts_parse_table_388), (389, ts_parse_table_389), (390, ts_parse_table_390),
     (391, ts_parse_table_391), (392, ts_parse_table_392), (393, ts_parse_table_393),
     (394, ts_parse_table_394), (395, ts_parse_table_395), (396, ts_parse_table_396),
     (397, ts_parse_table_397), (398, ts_parse_table_398), (399, ts_parse_table_399),
     (400, ts_parse_table_400), (401, ts_parse_table_401), (402, ts_parse_table_402),
     (403, ts_parse_table_403)]"

lemma rows_ok_7: "list_all (\<lambda>(s, es). table_row_ok s es) ts_parse_table_rows_7"
  by (simp add: ts_parse_table_rows_7_def
    row_ok_331 row_ok_332 row_ok_333 row_ok_334 row_ok_335 row_ok_336 row_ok_337 row_ok_338 row_ok_339
    row_ok_340 row_ok_341 row_ok_342 row_ok_343 row_ok_344 row_ok_345 row_ok_346 row_ok_347 row_ok_348
    row_ok_349 row_ok_350 row_ok_351 row_ok_352 row_ok_353 row_ok_354 row_ok_355 row_ok_356 row_ok_357
    row_ok_358 row_ok_359 row_ok_360 row_ok_361 row_ok_362 row_ok_363 row_ok_364 row_ok_365 row_ok_366
    row_ok_367 row_ok_368 row_ok_369 row_ok_370 row_ok_371 row_ok_372 row_ok_373 row_ok_374 row_ok_375
    row_ok_376 row_ok_377 row_ok_378 row_ok_379 row_ok_380 row_ok_381 row_ok_382 row_ok_383 row_ok_384
    row_ok_385 row_ok_386 row_ok_387 row_ok_388 row_ok_389 row_ok_390 row_ok_391 row_ok_392 row_ok_393
    row_ok_394 row_ok_395 row_ok_396 row_ok_397 row_ok_398 row_ok_399 row_ok_400 row_ok_401 row_ok_402
    row_ok_403)

lemma row_keys_7: "map fst ts_parse_table_rows_7 = [331..<404]"
  by (simp add: ts_parse_table_rows_7_def upt_from_0)

end
