(* ===== verification/Dart_Rows_8.thy ===== *)
theory Dart_Rows_8
  imports Dart_Items
begin

text \<open>
  The rows 404 to 493 of \<^verbatim>\<open>ts_parse_table\<close>, each with the check of its entries.
\<close>

definition ts_parse_table_404 :: table_row where
  "ts_parse_table_404 = [
     (sym__bool_literal, STATE 2124), (sym__numeric_literal, STATE 2124),
     (sym_symbol_literal, STATE 2124), (sym_true, STATE 2120), (sym_false, STATE 2120),
     (sym_string_literal, STATE 2124), (sym__string_literal_double_quotes, STATE 1854),
     (sym__string_literal_single_quotes, STATE 1854),
     (sym__string_literal_double_quotes_multiple, STATE 1854),
     (sym__string_literal_single_quotes_multiple, STATE 1854),
     (sym__raw_string_literal_double_quotes, STATE 1854),
     (sym__raw_string_literal_single_quotes, STATE 1854),
     (sym__raw_string_literal_double_quotes_multiple, STATE 1854),
     (sym__raw_string_literal_single_quotes_multiple, STATE 1854),
     (sym_null_literal, STATE 2124), (sym_relational_operator, STATE 345),
     (sym_const_object_expression, STATE 2124), (sym_type_arguments, STATE 3171),
     (sym_switch_expression_case, STATE 2792), (sym__guarded_pattern, STATE 3408),
     (sym__pattern, STATE 2666), (sym__logical_or_pattern, STATE 2373),
     (sym__logical_and_pattern, STATE 2152), (sym__relational_pattern, STATE 2147),
     (sym__unary_pattern, STATE 2230), (sym__primary_pattern, STATE 2129),
     (sym_cast_pattern, STATE 2231), (sym_null_check_pattern, STATE 2231),
     (sym_null_assert_pattern, STATE 2231), (sym_constant_pattern, STATE 2102),
     (sym_variable_pattern, STATE 2102), (sym__parenthesized_pattern, STATE 2102),
     (sym_list_pattern, STATE 2102), (sym_map_pattern, STATE 2102),
     (sym_record_pattern, STATE 2102), (sym_object_pattern, STATE 2102), (sym__type, STATE 3547),
     (sym__type_not_function, STATE 1796), (sym__type_not_void_not_function, STATE 1896),
     (sym_function_type, STATE 1848), (aux_sym__function_type_tails, STATE 1605),
     (sym__function_type_tail, STATE 1704), (sym_record_type, STATE 1805),
     (sym__type_name, STATE 2156), (sym__final_var_or_type, STATE 3469),
     (sym_inferred_type, STATE 3547), (sym_qualified, STATE 2124),
     (sym__function_builtin_identifier, STATE 1463), (sym_final_builtin, STATE 2100),
     (sym_comment, STATE 404), (sym_documentation_comment, STATE 404),
     (aux_sym_string_literal_repeat1, STATE 1475), (sym_identifier, ACTIONS 967),
     (anon_sym_POUND, ACTIONS 850), (sym_decimal_integer_literal, ACTIONS 852),
     (sym_hex_integer_literal, ACTIONS 854), (sym_decimal_floating_point_literal, ACTIONS 852),
     (anon_sym_true, ACTIONS 856), (anon_sym_false, ACTIONS 858), (anon_sym_DQUOTE, ACTIONS 860),
     (anon_sym_SQUOTE, ACTIONS 862), (anon_sym_DQUOTE_DQUOTE_DQUOTE, ACTIONS 864),
     (anon_sym_SQUOTE_SQUOTE_SQUOTE, ACTIONS 866), (anon_sym_r_DQUOTE, ACTIONS 868),
     (anon_sym_r_SQUOTE, ACTIONS 870), (anon_sym_r_DQUOTE_DQUOTE_DQUOTE, ACTIONS 872),
     (anon_sym_r_SQUOTE_SQUOTE_SQUOTE, ACTIONS 874), (anon_sym_LBRACE, ACTIONS 876),
     (anon_sym_LBRACK, ACTIONS 880), (anon_sym_null, ACTIONS 882),
     (anon_sym_LPAREN, ACTIONS 884), (sym_equality_operator, ACTIONS 396),
     (anon_sym_LT, ACTIONS 886), (anon_sym_GT, ACTIONS 400), (anon_sym_LT_EQ, ACTIONS 402),
     (anon_sym_GT_EQ, ACTIONS 402), (sym_minus_operator, ACTIONS 888),
     (anon_sym_final, ACTIONS 145), (sym_void_type, ACTIONS 33), (anon_sym_var, ACTIONS 35),
     (anon_sym_Function, ACTIONS 45), (sym_const_builtin, ACTIONS 894),
     (anon_sym_SLASH_SLASH, ACTIONS 3), (anon_sym_SLASH_STAR, ACTIONS 5),
     (anon_sym_SLASH_SLASH_SLASH, ACTIONS 7), (sym__block_comment, ACTIONS 9),
     (sym__documentation_block_comment, ACTIONS 11)]"

lemma row_ok_404: "table_row_ok 404 ts_parse_table_404"
  by (simp add: row_simps ts_parse_table_404_def)

definition ts_parse_table_405 :: table_row where
  "ts_parse_table_405 = [
     (sym__bool_literal, STATE 2124), (sym__numeric_literal, STATE 2124),
     (sym_symbol_literal, STATE 2124), (sym_true, STATE 2120), (sym_false, STATE 2120),
     (sym_string_literal, STATE 2124), (sym__string_literal_double_quotes, STATE 1854),
     (sym__string_literal_single_quotes, STATE 1854),
     (sym__string_literal_double_quotes_multiple, STATE 1854),
     (sym__string_literal_single_quotes_multiple, STATE 1854),
     (sym__raw_string_literal_double_quotes, STATE 1854),
     (sym__raw_string_literal_single_quotes, STATE 1854),
     (sym__raw_string_literal_double_quotes_multiple, STATE 1854),
     (sym__raw_string_literal_single_quotes_multiple, STATE 1854),
     (sym_null_literal, STATE 2124), (sym_relational_operator, STATE 345),
     (sym_const_object_expression, STATE 2124), (sym_type_arguments, STATE 3171),
     (sym__pattern, STATE 3014), (sym__logical_or_pattern, STATE 2373),
     (sym__logical_and_pattern, STATE 2152), (sym__relational_pattern, STATE 2147),
     (sym__unary_pattern, STATE 2230), (sym__primary_pattern, STATE 2129),
     (sym_cast_pattern, STATE 2231), (sym_null_check_pattern, STATE 2231),
     (sym_null_assert_pattern, STATE 2231), (sym_constant_pattern, STATE 2102),
     (sym_variable_pattern, STATE 2102), (sym__parenthesized_pattern, STATE 2102),
     (sym_list_pattern, STATE 2102), (sym_map_pattern, STATE 2102),
     (sym_record_pattern, STATE 2102), (sym__pattern_field, STATE 3184),
     (sym_object_pattern, STATE 2102), (sym__type, STATE 3547),
     (sym__type_not_function, STATE 1796), (sym__type_not_void_not_function, STATE 1896),
     (sym_function_type, STATE 1848), (aux_sym__function_type_tails, STATE 1605),
     (sym__function_type_tail, STATE 1704), (sym_record_type, STATE 1805),
     (sym__type_name, STATE 2156), (sym__final_var_or_type, STATE 3469),
     (sym_inferred_type, STATE 3547), (sym_qualified, STATE 2124),
     (sym__function_builtin_identifier, STATE 1463), (sym_final_builtin, STATE 2100),
     (sym_comment, STATE 405), (sym_documentation_comment, STATE 405),
     (aux_sym_string_literal_repeat1, STATE 1475), (sym_identifier, ACTIONS 997),
     (anon_sym_POUND, ACTIONS 850), (sym_decimal_integer_literal, ACTIONS 852),
     (sym_hex_integer_literal, ACTIONS 854), (sym_decimal_floating_point_literal, ACTIONS 852),
     (anon_sym_true, ACTIONS 856), (anon_sym_false, ACTIONS 858), (anon_sym_DQUOTE, ACTIONS 860),
     (anon_sym_SQUOTE, ACTIONS 862), (anon_sym_DQUOTE_DQUOTE_DQUOTE, ACTIONS 864),
     (anon_sym_SQUOTE_SQUOTE_SQUOTE, ACTIONS 866), (anon_sym_r_DQUOTE, ACTIONS 868),
     (anon_sym_r_SQUOTE, ACTIONS 870), (anon_sym_r_DQUOTE_DQUOTE_DQUOTE, ACTIONS 872),
     (anon_sym_r_SQUOTE_SQUOTE_SQUOTE, ACTIONS 874), (anon_sym_LBRACE, ACTIONS 876),
     (anon_sym_LBRACK, ACTIONS 880), (anon_sym_COLON, ACTIONS 428), (anon_sym_null, ACTIONS 882),
     (anon_sym_LPAREN, ACTIONS 884), (sym_equality_operator, ACTIONS 396),
     (anon_sym_LT, ACTIONS 886), (anon_sym_GT, ACTIONS 400), (anon_sym_LT_EQ, ACTIONS 402),
     (anon_sym_GT_EQ, ACTIONS 402), (sym_minus_operator, ACTIONS 888),
     (anon_sym_final, ACTIONS 145), (sym_void_type, ACTIONS 33), (anon_sym_var, ACTIONS 35),
     (anon_sym_Function, ACTIONS 45), (sym_const_builtin, ACTIONS 894),
     (anon_sym_SLASH_SLASH, ACTIONS 3), (anon_sym_SLASH_STAR, ACTIONS 5),
     (anon_sym_SLASH_SLASH_SLASH, ACTIONS 7), (sym__block_comment, ACTIONS 9),
     (sym__documentation_block_comment, ACTIONS 11)]"

lemma row_ok_405: "table_row_ok 405 ts_parse_table_405"
  by (simp add: row_simps ts_parse_table_405_def)

definition ts_parse_table_406 :: table_row where
  "ts_parse_table_406 = [
     (sym__bool_literal, STATE 2124), (sym__numeric_literal, STATE 2124),
     (sym_symbol_literal, STATE 2124), (sym_true, STATE 2120), (sym_false, STATE 2120),
     (sym_string_literal, STATE 2124), (sym__string_literal_double_quotes, STATE 1854),
     (sym__string_literal_single_quotes, STATE 1854),
     (sym__string_literal_double_quotes_multiple, STATE 1854),
     (sym__string_literal_single_quotes_multiple, STATE 1854),
     (sym__raw_string_literal_double_quotes, STATE 1854),
     (sym__raw_string_literal_single_quotes, STATE 1854),
     (sym__raw_string_literal_double_quotes_multiple, STATE 1854),
     (sym__raw_string_literal_single_quotes_multiple, STATE 1854),
     (sym_null_literal, STATE 2124), (sym_relational_operator, STATE 345),
     (sym_const_object_expression, STATE 2124), (sym_type_arguments, STATE 3171),
     (sym_switch_expression_case, STATE 3269), (sym__guarded_pattern, STATE 3408),
     (sym__pattern, STATE 2666), (sym__logical_or_pattern, STATE 2373),
     (sym__logical_and_pattern, STATE 2152), (sym__relational_pattern, STATE 2147),
     (sym__unary_pattern, STATE 2230), (sym__primary_pattern, STATE 2129),
     (sym_cast_pattern, STATE 2231), (sym_null_check_pattern, STATE 2231),
     (sym_null_assert_pattern, STATE 2231), (sym_constant_pattern, STATE 2102),
     (sym_variable_pattern, STATE 2102), (sym__parenthesized_pattern, STATE 2102),
     (sym_list_pattern, STATE 2102), (sym_map_pattern, STATE 2102),
     (sym_record_pattern, STATE 2102), (sym_object_pattern, STATE 2102), (sym__type, STATE 3547),
     (sym__type_not_function, STATE 1796), (sym__type_not_void_not_function, STATE 1896),
     (sym_function_type, STATE 1848), (aux_sym__function_type_tails, STATE 1605),
     (sym__function_type_tail, STATE 1704), (sym_record_type, STATE 1805),
     (sym__type_name, STATE 2156), (sym__final_var_or_type, STATE 3469),
     (sym_inferred_type, STATE 3547), (sym_qualified, STATE 2124),
     (sym__function_builtin_identifier, STATE 1463), (sym_final_builtin, STATE 2100),
     (sym_comment, STATE 406), (sym_documentation_comment, STATE 406),
     (aux_sym_string_literal_repeat1, STATE 1475), (sym_identifier, ACTIONS 967),
     (anon_sym_POUND, ACTIONS 850), (sym_decimal_integer_literal, ACTIONS 852),
     (sym_hex_integer_literal, ACTIONS 854), (sym_decimal_floating_point_literal, ACTIONS 852),
     (anon_sym_true, ACTIONS 856), (anon_sym_false, ACTIONS 858), (anon_sym_DQUOTE, ACTIONS 860),
     (anon_sym_SQUOTE, ACTIONS 862), (anon_sym_DQUOTE_DQUOTE_DQUOTE, ACTIONS 864),
     (anon_sym_SQUOTE_SQUOTE_SQUOTE, ACTIONS 866), (anon_sym_r_DQUOTE, ACTIONS 868),
     (anon_sym_r_SQUOTE, ACTIONS 870), (anon_sym_r_DQUOTE_DQUOTE_DQUOTE, ACTIONS 872),
     (anon_sym_r_SQUOTE_SQUOTE_SQUOTE, ACTIONS 874), (anon_sym_LBRACE, ACTIONS 876),
     (anon_sym_LBRACK, ACTIONS 880), (anon_sym_null, ACTIONS 882),
     (anon_sym_LPAREN, ACTIONS 884), (sym_equality_operator, ACTIONS 396),
     (anon_sym_LT, ACTIONS 886), (anon_sym_GT, ACTIONS 400), (anon_sym_LT_EQ, ACTIONS 402),
     (anon_sym_GT_EQ, ACTIONS 402), (sym_minus_operator, ACTIONS 888),
     (anon_sym_final, ACTIONS 145), (sym_void_type, ACTIONS 33), (anon_sym_var, ACTIONS 35),
     (anon_sym_Function, ACTIONS 45), (sym_const_builtin, ACTIONS 894),
     (anon_sym_SLASH_SLASH, ACTIONS 3), (anon_sym_SLASH_STAR, ACTIONS 5),
     (anon_sym_SLASH_SLASH_SLASH, ACTIONS 7), (sym__block_comment, ACTIONS 9),
     (sym__documentation_block_comment, ACTIONS 11)]"

lemma row_ok_406: "table_row_ok 406 ts_parse_table_406"
  by (simp add: row_simps ts_parse_table_406_def)

definition ts_parse_table_407 :: table_row where
  "ts_parse_table_407 = [
     (sym__bool_literal, STATE 2124), (sym__numeric_literal, STATE 2124),
     (sym_symbol_literal, STATE 2124), (sym_true, STATE 2120), (sym_false, STATE 2120),
     (sym_string_literal, STATE 2124), (sym__string_literal_double_quotes, STATE 1854),
     (sym__string_literal_single_quotes, STATE 1854),
     (sym__string_literal_double_quotes_multiple, STATE 1854),
     (sym__string_literal_single_quotes_multiple, STATE 1854),
     (sym__raw_string_literal_double_quotes, STATE 1854),
     (sym__raw_string_literal_single_quotes, STATE 1854),
     (sym__raw_string_literal_double_quotes_multiple, STATE 1854),
     (sym__raw_string_literal_single_quotes_multiple, STATE 1854),
     (sym_null_literal, STATE 2124), (sym_relational_operator, STATE 345),
     (sym_const_object_expression, STATE 2124), (sym_type_arguments, STATE 3171),
     (sym__guarded_pattern, STATE 3286), (sym__pattern, STATE 2666),
     (sym__logical_or_pattern, STATE 2373), (sym__logical_and_pattern, STATE 2152),
     (sym__relational_pattern, STATE 2147), (sym__unary_pattern, STATE 2230),
     (sym__primary_pattern, STATE 2129), (sym_cast_pattern, STATE 2231),
     (sym_null_check_pattern, STATE 2231), (sym_null_assert_pattern, STATE 2231),
     (sym_constant_pattern, STATE 2102), (sym_variable_pattern, STATE 2102),
     (sym__parenthesized_pattern, STATE 2102), (sym_list_pattern, STATE 2102),
     (sym_map_pattern, STATE 2102), (sym_record_pattern, STATE 2102),
     (sym_object_pattern, STATE 2102), (sym__type, STATE 3547),
     (sym__type_not_function, STATE 1796), (sym__type_not_void_not_function, STATE 1896),
     (sym_function_type, STATE 1848), (aux_sym__function_type_tails, STATE 1605),
     (sym__function_type_tail, STATE 1704), (sym_record_type, STATE 1805),
     (sym__type_name, STATE 2156), (sym__final_var_or_type, STATE 3469),
     (sym_inferred_type, STATE 3547), (sym_qualified, STATE 2124),
     (sym__function_builtin_identifier, STATE 1463), (sym_final_builtin, STATE 2100),
     (sym_comment, STATE 407), (sym_documentation_comment, STATE 407),
     (aux_sym_string_literal_repeat1, STATE 1475), (sym_identifier, ACTIONS 967),
     (anon_sym_POUND, ACTIONS 850), (sym_decimal_integer_literal, ACTIONS 852),
     (sym_hex_integer_literal, ACTIONS 854), (sym_decimal_floating_point_literal, ACTIONS 852),
     (anon_sym_true, ACTIONS 856), (anon_sym_false, ACTIONS 858), (anon_sym_DQUOTE, ACTIONS 860),
     (anon_sym_SQUOTE, ACTIONS 862), (anon_sym_DQUOTE_DQUOTE_DQUOTE, ACTIONS 864),
     (anon_sym_SQUOTE_SQUOTE_SQUOTE, ACTIONS 866), (anon_sym_r_DQUOTE, ACTIONS 868),
     (anon_sym_r_SQUOTE, ACTIONS 870), (anon_sym_r_DQUOTE_DQUOTE_DQUOTE, ACTIONS 872),
     (anon_sym_r_SQUOTE_SQUOTE_SQUOTE, ACTIONS 874), (anon_sym_LBRACE, ACTIONS 876),
     (anon_sym_LBRACK, ACTIONS 880), (anon_sym_null, ACTIONS 882),
     (anon_sym_LPAREN, ACTIONS 884), (sym_equality_operator, ACTIONS 396),
     (anon_sym_LT, ACTIONS 886), (anon_sym_GT, ACTIONS 400), (anon_sym_LT_EQ, ACTIONS 402),
     (anon_sym_GT_EQ, ACTIONS 402), (sym_minus_operator, ACTIONS 888),
     (anon_sym_final, ACTIONS 145), (sym_void_type, ACTIONS 33), (anon_sym_var, ACTIONS 35),
     (anon_sym_Function, ACTIONS 45), (sym_const_builtin, ACTIONS 894),
     (anon_sym_SLASH_SLASH, ACTIONS 3), (anon_sym_SLASH_STAR, ACTIONS 5),
     (anon_sym_SLASH_SLASH_SLASH, ACTIONS 7), (sym__block_comment, ACTIONS 9),
     (sym__documentation_block_comment, ACTIONS 11)]"

lemma row_ok_407: "table_row_ok 407 ts_parse_table_407"
  by (simp add: row_simps ts_parse_table_407_def)

definition ts_parse_table_408 :: table_row where
  "ts_parse_table_408 = [
     (sym__bool_literal, STATE 2124), (sym__numeric_literal, STATE 2124),
     (sym_symbol_literal, STATE 2124), (sym_true, STATE 2120), (sym_false, STATE 2120),
     (sym_string_literal, STATE 2124), (sym__string_literal_double_quotes, STATE 1854),
     (sym__string_literal_single_quotes, STATE 1854),
     (sym__string_literal_double_quotes_multiple, STATE 1854),
     (sym__string_literal_single_quotes_multiple, STATE 1854),
     (sym__raw_string_literal_double_quotes, STATE 1854),
     (sym__raw_string_literal_single_quotes, STATE 1854),
     (sym__raw_string_literal_double_quotes_multiple, STATE 1854),
     (sym__raw_string_literal_single_quotes_multiple, STATE 1854),
     (sym_null_literal, STATE 2124), (sym_relational_operator, STATE 345),
     (sym_const_object_expression, STATE 2124), (sym_type_arguments, STATE 3171),
     (sym__guarded_pattern, STATE 3451), (sym__pattern, STATE 2666),
     (sym__logical_or_pattern, STATE 2373), (sym__logical_and_pattern, STATE 2152),
     (sym__relational_pattern, STATE 2147), (sym__unary_pattern, STATE 2230),
     (sym__primary_pattern, STATE 2129), (sym_cast_pattern, STATE 2231),
     (sym_null_check_pattern, STATE 2231), (sym_null_assert_pattern, STATE 2231),
     (sym_constant_pattern, STATE 2102), (sym_variable_pattern, STATE 2102),
     (sym__parenthesized_pattern, STATE 2102), (sym_list_pattern, STATE 2102),
     (sym_map_pattern, STATE 2102), (sym_record_pattern, STATE 2102),
     (sym_object_pattern, STATE 2102), (sym__type, STATE 3547),
     (sym__type_not_function, STATE 1796), (sym__type_not_void_not_function, STATE 1896),
     (sym_function_type, STATE 1848), (aux_sym__function_type_tails, STATE 1605),
     (sym__function_type_tail, STATE 1704), (sym_record_type, STATE 1805),
     (sym__type_name, STATE 2156), (sym__final_var_or_type, STATE 3469),
     (sym_inferred_type, STATE 3547), (sym_qualified, STATE 2124),
     (sym__function_builtin_identifier, STATE 1463), (sym_final_builtin, STATE 2100),
     (sym_comment, STATE 408), (sym_documentation_comment, STATE 408),
     (aux_sym_string_literal_repeat1, STATE 1475), (sym_identifier, ACTIONS 967),
     (anon_sym_POUND, ACTIONS 850), (sym_decimal_integer_literal, ACTIONS 852),
     (sym_hex_integer_literal, ACTIONS 854), (sym_decimal_floating_point_literal, ACTIONS 852),
     (anon_sym_true, ACTIONS 856), (anon_sym_false, ACTIONS 858), (anon_sym_DQUOTE, ACTIONS 860),
     (anon_sym_SQUOTE, ACTIONS 862), (anon_sym_DQUOTE_DQUOTE_DQUOTE, ACTIONS 864),
     (anon_sym_SQUOTE_SQUOTE_SQUOTE, ACTIONS 866), (anon_sym_r_DQUOTE, ACTIONS 868),
     (anon_sym_r_SQUOTE, ACTIONS 870), (anon_sym_r_DQUOTE_DQUOTE_DQUOTE, ACTIONS 872),
     (anon_sym_r_SQUOTE_SQUOTE_SQUOTE, ACTIONS 874), (anon_sym_LBRACE, ACTIONS 876),
     (anon_sym_LBRACK, ACTIONS 880), (anon_sym_null, ACTIONS 882),
     (anon_sym_LPAREN, ACTIONS 884), (sym_equality_operator, ACTIONS 396),
     (anon_sym_LT, ACTIONS 886), (anon_sym_GT, ACTIONS 400), (anon_sym_LT_EQ, ACTIONS 402),
     (anon_sym_GT_EQ, ACTIONS 402), (sym_minus_operator, ACTIONS 888),
     (anon_sym_final, ACTIONS 145), (sym_void_type, ACTIONS 33), (anon_sym_var, ACTIONS 35),
     (anon_sym_Function, ACTIONS 45), (sym_const_builtin, ACTIONS 894),
     (anon_sym_SLASH_SLASH, ACTIONS 3), (anon_sym_SLASH_STAR, ACTIONS 5),
     (anon_sym_SLASH_SLASH_SLASH, ACTIONS 7), (sym__block_comment, ACTIONS 9),
     (sym__documentation_block_comment, ACTIONS 11)]"

lemma row_ok_408: "table_row_ok 408 ts_parse_table_408"
  by (simp add: row_simps ts_parse_table_408_def)

definition ts_parse_table_409 :: table_row where
  "ts_parse_table_409 = [
     (sym__bool_literal, STATE 2124), (sym__numeric_literal, STATE 2124),
     (sym_symbol_literal, STATE 2124), (sym_true, STATE 2120), (sym_false, STATE 2120),
     (sym_string_literal, STATE 2124), (sym__string_literal_double_quotes, STATE 1854),
     (sym__string_literal_single_quotes, STATE 1854),
     (sym__string_literal_double_quotes_multiple, STATE 1854),
     (sym__string_literal_single_quotes_multiple, STATE 1854),
     (sym__raw_string_literal_double_quotes, STATE 1854),
     (sym__raw_string_literal_single_quotes, STATE 1854),
     (sym__raw_string_literal_double_quotes_multiple, STATE 1854),
     (sym__raw_string_literal_single_quotes_multiple, STATE 1854),
     (sym_null_literal, STATE 2124), (sym_relational_operator, STATE 345),
     (sym_const_object_expression, STATE 2124), (sym_type_arguments, STATE 3171),
     (sym__guarded_pattern, STATE 3467), (sym__pattern, STATE 2666),
     (sym__logical_or_pattern, STATE 2373), (sym__logical_and_pattern, STATE 2152),
     (sym__relational_pattern, STATE 2147), (sym__unary_pattern, STATE 2230),
     (sym__primary_pattern, STATE 2129), (sym_cast_pattern, STATE 2231),
     (sym_null_check_pattern, STATE 2231), (sym_null_assert_pattern, STATE 2231),
     (sym_constant_pattern, STATE 2102), (sym_variable_pattern, STATE 2102),
     (sym__parenthesized_pattern, STATE 2102), (sym_list_pattern, STATE 2102),
     (sym_map_pattern, STATE 2102), (sym_record_pattern, STATE 2102),
     (sym_object_pattern, STATE 2102), (sym__type, STATE 3547),
     (sym__type_not_function, STATE 1796), (sym__type_not_void_not_function, STATE 1896),
     (sym_function_type, STATE 1848), (aux_sym__function_type_tails, STATE 1605),
     (sym__function_type_tail, STATE 1704), (sym_record_type, STATE 1805),
     (sym__type_name, STATE 2156), (sym__final_var_or_type, STATE 3469),
     (sym_inferred_type, STATE 3547), (sym_qualified, STATE 2124),
     (sym__function_builtin_identifier, STATE 1463), (sym_final_builtin, STATE 2100),
     (sym_comment, STATE 409), (sym_documentation_comment, STATE 409),
     (aux_sym_string_literal_repeat1, STATE 1475), (sym_identifier, ACTIONS 967),
     (anon_sym_POUND, ACTIONS 850), (sym_decimal_integer_literal, ACTIONS 852),
     (sym_hex_integer_literal, ACTIONS 854), (sym_decimal_floating_point_literal, ACTIONS 852),
     (anon_sym_true, ACTIONS 856), (anon_sym_false, ACTIONS 858), (anon_sym_DQUOTE, ACTIONS 860),
     (anon_sym_SQUOTE, ACTIONS 862), (anon_sym_DQUOTE_DQUOTE_DQUOTE, ACTIONS 864),
     (anon_sym_SQUOTE_SQUOTE_SQUOTE, ACTIONS 866), (anon_sym_r_DQUOTE, ACTIONS 868),
     (anon_sym_r_SQUOTE, ACTIONS 870), (anon_sym_r_DQUOTE_DQUOTE_DQUOTE, ACTIONS 872),
     (anon_sym_r_SQUOTE_SQUOTE_SQUOTE, ACTIONS 874), (anon_sym_LBRACE, ACTIONS 876),
     (anon_sym_LBRACK, ACTIONS 880), (anon_sym_null, ACTIONS 882),
     (anon_sym_LPAREN, ACTIONS 884), (sym_equality_operator, ACTIONS 396),
     (anon_sym_LT, ACTIONS 886), (anon_sym_GT, ACTIONS 400), (anon_sym_LT_EQ, ACTIONS 402),
     (anon_sym_GT_EQ, ACTIONS 402), (sym_minus_operator, ACTIONS 888),
     (anon_sym_final, ACTIONS 145), (sym_void_type, ACTIONS 33), (anon_sym_var, ACTIONS 35),
     (anon_sym_Function, ACTIONS 45), (sym_const_builtin, ACTIONS 894),
     (anon_sym_SLASH_SLASH, ACTIONS 3), (anon_sym_SLASH_STAR, ACTIONS 5),
     (anon_sym_SLASH_SLASH_SLASH, ACTIONS 7), (sym__block_comment, ACTIONS 9),
     (sym__documentation_block_comment, ACTIONS 11)]"

lemma row_ok_409: "table_row_ok 409 ts_parse_table_409"
  by (simp add: row_simps ts_parse_table_409_def)

definition ts_parse_table_410 :: table_row where
  "ts_parse_table_410 = [
     (sym__bool_literal, STATE 989), (sym__numeric_literal, STATE 989),
     (sym__literal, STATE 962), (sym_symbol_literal, STATE 989), (sym_true, STATE 900),
     (sym_false, STATE 900), (sym_string_literal, STATE 989),
     (sym__string_literal_double_quotes, STATE 627),
     (sym__string_literal_single_quotes, STATE 627),
     (sym__string_literal_double_quotes_multiple, STATE 627),
     (sym__string_literal_single_quotes_multiple, STATE 627),
     (sym__raw_string_literal_double_quotes, STATE 627),
     (sym__raw_string_literal_single_quotes, STATE 627),
     (sym__raw_string_literal_double_quotes_multiple, STATE 627),
     (sym__raw_string_literal_single_quotes_multiple, STATE 627), (sym_list_literal, STATE 989),
     (sym_set_or_map_literal, STATE 989), (sym_null_literal, STATE 989),
     (sym_record_literal, STATE 989), (sym__record_literal_no_const, STATE 924),
     (sym_assignable_expression, STATE 3122), (sym_function_expression, STATE 962),
     (sym__unary_expression, STATE 1316), (sym_unary_expression, STATE 1303),
     (sym__postfix_expression, STATE 1303), (sym_postfix_expression, STATE 1301),
     (sym_prefix_operator, STATE 431), (sym_negation_operator, STATE 1450),
     (sym__exclamation_operator, STATE 1451), (sym_tilde_operator, STATE 1385),
     (sym_await_expression, STATE 1302), (sym_new_expression, STATE 962),
     (sym_const_object_expression, STATE 962), (sym__primary, STATE 674),
     (sym_parenthesized_expression, STATE 962), (sym_constructor_invocation, STATE 654),
     (sym_constructor_tearoff, STATE 962), (sym_type_arguments, STATE 3146),
     (sym_switch_expression, STATE 962), (sym_type_parameters, STATE 2932),
     (sym__type_name, STATE 2859), (sym__formal_parameter_part, STATE 2339),
     (sym_formal_parameter_list, STATE 2020), (sym__strict_formal_parameter_list, STATE 2016),
     (sym__new_builtin, STATE 2079), (sym_this, STATE 962), (sym_super, STATE 2594),
     (sym_comment, STATE 410), (sym_documentation_comment, STATE 410),
     (aux_sym_string_literal_repeat1, STATE 474), (sym_identifier, ACTIONS 844),
     (anon_sym_POUND, ACTIONS 73), (sym_decimal_integer_literal, ACTIONS 75),
     (sym_hex_integer_literal, ACTIONS 77), (sym_decimal_floating_point_literal, ACTIONS 75),
     (anon_sym_true, ACTIONS 79), (anon_sym_false, ACTIONS 81), (anon_sym_DQUOTE, ACTIONS 83),
     (anon_sym_SQUOTE, ACTIONS 85), (anon_sym_DQUOTE_DQUOTE_DQUOTE, ACTIONS 87),
     (anon_sym_SQUOTE_SQUOTE_SQUOTE, ACTIONS 89), (anon_sym_r_DQUOTE, ACTIONS 91),
     (anon_sym_r_SQUOTE, ACTIONS 93), (anon_sym_r_DQUOTE_DQUOTE_DQUOTE, ACTIONS 95),
     (anon_sym_r_SQUOTE_SQUOTE_SQUOTE, ACTIONS 97), (anon_sym_LBRACE, ACTIONS 766),
     (anon_sym_LBRACK, ACTIONS 768), (anon_sym_null, ACTIONS 105),
     (anon_sym_LPAREN, ACTIONS 770), (anon_sym_LT, ACTIONS 111),
     (sym_increment_operator, ACTIONS 113), (sym_minus_operator, ACTIONS 117),
     (anon_sym_BANG, ACTIONS 119), (anon_sym_TILDE, ACTIONS 121), (anon_sym_await, ACTIONS 432),
     (anon_sym_switch, ACTIONS 412), (anon_sym_for, ACTIONS 1025), (anon_sym_new, ACTIONS 155),
     (sym_const_builtin, ACTIONS 478), (anon_sym_this, ACTIONS 159),
     (anon_sym_super, ACTIONS 161), (anon_sym_SLASH_SLASH, ACTIONS 3),
     (anon_sym_SLASH_STAR, ACTIONS 5), (anon_sym_SLASH_SLASH_SLASH, ACTIONS 7),
     (sym__block_comment, ACTIONS 9), (sym__documentation_block_comment, ACTIONS 11)]"

lemma row_ok_410: "table_row_ok 410 ts_parse_table_410"
  by (simp add: row_simps ts_parse_table_410_def)

definition ts_parse_table_411 :: table_row where
  "ts_parse_table_411 = [
     (sym__bool_literal, STATE 989), (sym__numeric_literal, STATE 989),
     (sym__literal, STATE 962), (sym_symbol_literal, STATE 989), (sym_true, STATE 900),
     (sym_false, STATE 900), (sym_string_literal, STATE 989),
     (sym__string_literal_double_quotes, STATE 627),
     (sym__string_literal_single_quotes, STATE 627),
     (sym__string_literal_double_quotes_multiple, STATE 627),
     (sym__string_literal_single_quotes_multiple, STATE 627),
     (sym__raw_string_literal_double_quotes, STATE 627),
     (sym__raw_string_literal_single_quotes, STATE 627),
     (sym__raw_string_literal_double_quotes_multiple, STATE 627),
     (sym__raw_string_literal_single_quotes_multiple, STATE 627), (sym_list_literal, STATE 989),
     (sym_set_or_map_literal, STATE 989), (sym_null_literal, STATE 989),
     (sym_record_literal, STATE 989), (sym__record_literal_no_const, STATE 924),
     (sym_assignable_expression, STATE 3122), (sym_function_expression, STATE 962),
     (sym__unary_expression, STATE 1316), (sym_unary_expression, STATE 1303),
     (sym__postfix_expression, STATE 1303), (sym_postfix_expression, STATE 1301),
     (sym_prefix_operator, STATE 431), (sym_negation_operator, STATE 1450),
     (sym__exclamation_operator, STATE 1451), (sym_tilde_operator, STATE 1385),
     (sym_await_expression, STATE 1302), (sym_new_expression, STATE 962),
     (sym_const_object_expression, STATE 962), (sym__primary, STATE 674),
     (sym_parenthesized_expression, STATE 962), (sym_constructor_invocation, STATE 654),
     (sym_constructor_tearoff, STATE 962), (sym_type_arguments, STATE 3146),
     (sym_switch_expression, STATE 962), (sym_type_parameters, STATE 2932),
     (sym__type_name, STATE 2859), (sym__formal_parameter_part, STATE 2339),
     (sym_formal_parameter_list, STATE 2020), (sym__strict_formal_parameter_list, STATE 2016),
     (sym__new_builtin, STATE 2079), (sym_this, STATE 962), (sym_super, STATE 2594),
     (sym_comment, STATE 411), (sym_documentation_comment, STATE 411),
     (aux_sym_string_literal_repeat1, STATE 474), (sym_identifier, ACTIONS 844),
     (anon_sym_POUND, ACTIONS 73), (sym_decimal_integer_literal, ACTIONS 75),
     (sym_hex_integer_literal, ACTIONS 77), (sym_decimal_floating_point_literal, ACTIONS 75),
     (anon_sym_true, ACTIONS 79), (anon_sym_false, ACTIONS 81), (anon_sym_DQUOTE, ACTIONS 83),
     (anon_sym_SQUOTE, ACTIONS 85), (anon_sym_DQUOTE_DQUOTE_DQUOTE, ACTIONS 87),
     (anon_sym_SQUOTE_SQUOTE_SQUOTE, ACTIONS 89), (anon_sym_r_DQUOTE, ACTIONS 91),
     (anon_sym_r_SQUOTE, ACTIONS 93), (anon_sym_r_DQUOTE_DQUOTE_DQUOTE, ACTIONS 95),
     (anon_sym_r_SQUOTE_SQUOTE_SQUOTE, ACTIONS 97), (anon_sym_LBRACE, ACTIONS 766),
     (anon_sym_LBRACK, ACTIONS 768), (anon_sym_null, ACTIONS 105),
     (anon_sym_LPAREN, ACTIONS 770), (anon_sym_LT, ACTIONS 111),
     (sym_increment_operator, ACTIONS 113), (sym_minus_operator, ACTIONS 117),
     (anon_sym_BANG, ACTIONS 119), (anon_sym_TILDE, ACTIONS 121), (anon_sym_await, ACTIONS 432),
     (anon_sym_switch, ACTIONS 412), (anon_sym_for, ACTIONS 1027), (anon_sym_new, ACTIONS 155),
     (sym_const_builtin, ACTIONS 478), (anon_sym_this, ACTIONS 159),
     (anon_sym_super, ACTIONS 161), (anon_sym_SLASH_SLASH, ACTIONS 3),
     (anon_sym_SLASH_STAR, ACTIONS 5), (anon_sym_SLASH_SLASH_SLASH, ACTIONS 7),
     (sym__block_comment, ACTIONS 9), (sym__documentation_block_comment, ACTIONS 11)]"

lemma row_ok_411: "table_row_ok 411 ts_parse_table_411"
  by (simp add: row_simps ts_parse_table_411_def)

definition ts_parse_table_412 :: table_row where
  "ts_parse_table_412 = [
     (sym__bool_literal, STATE 2124), (sym__numeric_literal, STATE 2124),
     (sym_symbol_literal, STATE 2124), (sym_true, STATE 2120), (sym_false, STATE 2120),
     (sym_string_literal, STATE 2124), (sym__string_literal_double_quotes, STATE 1854),
     (sym__string_literal_single_quotes, STATE 1854),
     (sym__string_literal_double_quotes_multiple, STATE 1854),
     (sym__string_literal_single_quotes_multiple, STATE 1854),
     (sym__raw_string_literal_double_quotes, STATE 1854),
     (sym__raw_string_literal_single_quotes, STATE 1854),
     (sym__raw_string_literal_double_quotes_multiple, STATE 1854),
     (sym__raw_string_literal_single_quotes_multiple, STATE 1854),
     (sym_null_literal, STATE 2124), (sym_relational_operator, STATE 345),
     (sym_const_object_expression, STATE 2124), (sym_type_arguments, STATE 3171),
     (sym__guarded_pattern, STATE 3285), (sym__pattern, STATE 2666),
     (sym__logical_or_pattern, STATE 2373), (sym__logical_and_pattern, STATE 2152),
     (sym__relational_pattern, STATE 2147), (sym__unary_pattern, STATE 2230),
     (sym__primary_pattern, STATE 2129), (sym_cast_pattern, STATE 2231),
     (sym_null_check_pattern, STATE 2231), (sym_null_assert_pattern, STATE 2231),
     (sym_constant_pattern, STATE 2102), (sym_variable_pattern, STATE 2102),
     (sym__parenthesized_pattern, STATE 2102), (sym_list_pattern, STATE 2102),
     (sym_map_pattern, STATE 2102), (sym_record_pattern, STATE 2102),
     (sym_object_pattern, STATE 2102), (sym__type, STATE 3547),
     (sym__type_not_function, STATE 1796), (sym__type_not_void_not_function, STATE 1896),
     (sym_function_type, STATE 1848), (aux_sym__function_type_tails, STATE 1605),
     (sym__function_type_tail, STATE 1704), (sym_record_type, STATE 1805),
     (sym__type_name, STATE 2156), (sym__final_var_or_type, STATE 3469),
     (sym_inferred_type, STATE 3547), (sym_qualified, STATE 2124),
     (sym__function_builtin_identifier, STATE 1463), (sym_final_builtin, STATE 2100),
     (sym_comment, STATE 412), (sym_documentation_comment, STATE 412),
     (aux_sym_string_literal_repeat1, STATE 1475), (sym_identifier, ACTIONS 967),
     (anon_sym_POUND, ACTIONS 850), (sym_decimal_integer_literal, ACTIONS 852),
     (sym_hex_integer_literal, ACTIONS 854), (sym_decimal_floating_point_literal, ACTIONS 852),
     (anon_sym_true, ACTIONS 856), (anon_sym_false, ACTIONS 858), (anon_sym_DQUOTE, ACTIONS 860),
     (anon_sym_SQUOTE, ACTIONS 862), (anon_sym_DQUOTE_DQUOTE_DQUOTE, ACTIONS 864),
     (anon_sym_SQUOTE_SQUOTE_SQUOTE, ACTIONS 866), (anon_sym_r_DQUOTE, ACTIONS 868),
     (anon_sym_r_SQUOTE, ACTIONS 870), (anon_sym_r_DQUOTE_DQUOTE_DQUOTE, ACTIONS 872),
     (anon_sym_r_SQUOTE_SQUOTE_SQUOTE, ACTIONS 874), (anon_sym_LBRACE, ACTIONS 876),
     (anon_sym_LBRACK, ACTIONS 880), (anon_sym_null, ACTIONS 882),
     (anon_sym_LPAREN, ACTIONS 884), (sym_equality_operator, ACTIONS 396),
     (anon_sym_LT, ACTIONS 886), (anon_sym_GT, ACTIONS 400), (anon_sym_LT_EQ, ACTIONS 402),
     (anon_sym_GT_EQ, ACTIONS 402), (sym_minus_operator, ACTIONS 888),
     (anon_sym_final, ACTIONS 145), (sym_void_type, ACTIONS 33), (anon_sym_var, ACTIONS 35),
     (anon_sym_Function, ACTIONS 45), (sym_const_builtin, ACTIONS 894),
     (anon_sym_SLASH_SLASH, ACTIONS 3), (anon_sym_SLASH_STAR, ACTIONS 5),
     (anon_sym_SLASH_SLASH_SLASH, ACTIONS 7), (sym__block_comment, ACTIONS 9),
     (sym__documentation_block_comment, ACTIONS 11)]"

lemma row_ok_412: "table_row_ok 412 ts_parse_table_412"
  by (simp add: row_simps ts_parse_table_412_def)

definition ts_parse_table_413 :: table_row where
  "ts_parse_table_413 = [
     (sym__bool_literal, STATE 989), (sym__numeric_literal, STATE 989),
     (sym__literal, STATE 962), (sym_symbol_literal, STATE 989), (sym_true, STATE 900),
     (sym_false, STATE 900), (sym_string_literal, STATE 989),
     (sym__string_literal_double_quotes, STATE 627),
     (sym__string_literal_single_quotes, STATE 627),
     (sym__string_literal_double_quotes_multiple, STATE 627),
     (sym__string_literal_single_quotes_multiple, STATE 627),
     (sym__raw_string_literal_double_quotes, STATE 627),
     (sym__raw_string_literal_single_quotes, STATE 627),
     (sym__raw_string_literal_double_quotes_multiple, STATE 627),
     (sym__raw_string_literal_single_quotes_multiple, STATE 627), (sym_list_literal, STATE 989),
     (sym_set_or_map_literal, STATE 989), (sym_null_literal, STATE 989),
     (sym_record_literal, STATE 989), (sym__record_literal_no_const, STATE 924),
     (sym_assignable_expression, STATE 3122), (sym_function_expression, STATE 962),
     (sym__unary_expression, STATE 1316), (sym_unary_expression, STATE 1303),
     (sym__postfix_expression, STATE 1303), (sym_postfix_expression, STATE 1301),
     (sym_prefix_operator, STATE 431), (sym_negation_operator, STATE 1450),
     (sym__exclamation_operator, STATE 1451), (sym_tilde_operator, STATE 1385),
     (sym_await_expression, STATE 1302), (sym_new_expression, STATE 962),
     (sym_const_object_expression, STATE 962), (sym__primary, STATE 674),
     (sym_parenthesized_expression, STATE 962), (sym_constructor_invocation, STATE 654),
     (sym_constructor_tearoff, STATE 962), (sym_type_arguments, STATE 3146),
     (sym_switch_expression, STATE 962), (sym_type_parameters, STATE 2932),
     (sym__type_name, STATE 2859), (sym__formal_parameter_part, STATE 2339),
     (sym_formal_parameter_list, STATE 2020), (sym__strict_formal_parameter_list, STATE 2016),
     (sym__new_builtin, STATE 2079), (sym_this, STATE 962), (sym_super, STATE 2594),
     (sym_comment, STATE 413), (sym_documentation_comment, STATE 413),
     (aux_sym_string_literal_repeat1, STATE 474), (sym_identifier, ACTIONS 844),
     (anon_sym_POUND, ACTIONS 73), (sym_decimal_integer_literal, ACTIONS 75),
     (sym_hex_integer_literal, ACTIONS 77), (sym_decimal_floating_point_literal, ACTIONS 75),
     (anon_sym_true, ACTIONS 79), (anon_sym_false, ACTIONS 81), (anon_sym_DQUOTE, ACTIONS 83),
     (anon_sym_SQUOTE, ACTIONS 85), (anon_sym_DQUOTE_DQUOTE_DQUOTE, ACTIONS 87),
     (anon_sym_SQUOTE_SQUOTE_SQUOTE, ACTIONS 89), (anon_sym_r_DQUOTE, ACTIONS 91),
     (anon_sym_r_SQUOTE, ACTIONS 93), (anon_sym_r_DQUOTE_DQUOTE_DQUOTE, ACTIONS 95),
     (anon_sym_r_SQUOTE_SQUOTE_SQUOTE, ACTIONS 97), (anon_sym_LBRACE, ACTIONS 766),
     (anon_sym_LBRACK, ACTIONS 768), (anon_sym_null, ACTIONS 105),
     (anon_sym_LPAREN, ACTIONS 770), (anon_sym_LT, ACTIONS 111),
     (sym_increment_operator, ACTIONS 113), (sym_minus_operator, ACTIONS 117),
     (anon_sym_BANG, ACTIONS 119), (anon_sym_TILDE, ACTIONS 121), (anon_sym_await, ACTIONS 432),
     (anon_sym_switch, ACTIONS 412), (anon_sym_for, ACTIONS 1029), (anon_sym_new, ACTIONS 155),
     (sym_const_builtin, ACTIONS 478), (anon_sym_this, ACTIONS 159),
     (anon_sym_super, ACTIONS 161), (anon_sym_SLASH_SLASH, ACTIONS 3),
     (anon_sym_SLASH_STAR, ACTIONS 5), (anon_sym_SLASH_SLASH_SLASH, ACTIONS 7),
     (sym__block_comment, ACTIONS 9), (sym__documentation_block_comment, ACTIONS 11)]"

lemma row_ok_413: "table_row_ok 413 ts_parse_table_413"
  by (simp add: row_simps ts_parse_table_413_def)

definition ts_parse_table_414 :: table_row where
  "ts_parse_table_414 = [
     (sym__bool_literal, STATE 989), (sym__numeric_literal, STATE 989),
     (sym__literal, STATE 962), (sym_symbol_literal, STATE 989), (sym_true, STATE 900),
     (sym_false, STATE 900), (sym_string_literal, STATE 989),
     (sym__string_literal_double_quotes, STATE 627),
     (sym__string_literal_single_quotes, STATE 627),
     (sym__string_literal_double_quotes_multiple, STATE 627),
     (sym__string_literal_single_quotes_multiple, STATE 627),
     (sym__raw_string_literal_double_quotes, STATE 627),
     (sym__raw_string_literal_single_quotes, STATE 627),
     (sym__raw_string_literal_double_quotes_multiple, STATE 627),
     (sym__raw_string_literal_single_quotes_multiple, STATE 627), (sym_list_literal, STATE 989),
     (sym_set_or_map_literal, STATE 989), (sym_null_literal, STATE 989),
     (sym_record_literal, STATE 989), (sym__record_literal_no_const, STATE 924),
     (sym_assignable_expression, STATE 3122), (sym_function_expression, STATE 962),
     (sym__unary_expression, STATE 1316), (sym_unary_expression, STATE 1303),
     (sym__postfix_expression, STATE 1303), (sym_postfix_expression, STATE 1301),
     (sym_prefix_operator, STATE 431), (sym_negation_operator, STATE 1450),
     (sym__exclamation_operator, STATE 1451), (sym_tilde_operator, STATE 1385),
     (sym_await_expression, STATE 1302), (sym_new_expression, STATE 962),
     (sym_const_object_expression, STATE 962), (sym__primary, STATE 674),
     (sym_parenthesized_expression, STATE 962), (sym_constructor_invocation, STATE 654),
     (sym_constructor_tearoff, STATE 962), (sym_type_arguments, STATE 3146),
     (sym_switch_expression, STATE 962), (sym_type_parameters, STATE 2932),
     (sym__type_name, STATE 2859), (sym__formal_parameter_part, STATE 2339),
     (sym_formal_parameter_list, STATE 2020), (sym__strict_formal_parameter_list, STATE 2016),
     (sym__new_builtin, STATE 2079), (sym_this, STATE 962), (sym_super, STATE 2594),
     (sym_comment, STATE 414), (sym_documentation_comment, STATE 414),
     (aux_sym_string_literal_repeat1, STATE 474), (sym_identifier, ACTIONS 844),
     (anon_sym_POUND, ACTIONS 73), (sym_decimal_integer_literal, ACTIONS 75),
     (sym_hex_integer_literal, ACTIONS 77), (sym_decimal_floating_point_literal, ACTIONS 75),
     (anon_sym_true, ACTIONS 79), (anon_sym_false, ACTIONS 81), (anon_sym_DQUOTE, ACTIONS 83),
     (anon_sym_SQUOTE, ACTIONS 85), (anon_sym_DQUOTE_DQUOTE_DQUOTE, ACTIONS 87),
     (anon_sym_SQUOTE_SQUOTE_SQUOTE, ACTIONS 89), (anon_sym_r_DQUOTE, ACTIONS 91),
     (anon_sym_r_SQUOTE, ACTIONS 93), (anon_sym_r_DQUOTE_DQUOTE_DQUOTE, ACTIONS 95),
     (anon_sym_r_SQUOTE_SQUOTE_SQUOTE, ACTIONS 97), (anon_sym_LBRACE, ACTIONS 766),
     (anon_sym_LBRACK, ACTIONS 768), (anon_sym_null, ACTIONS 105),
     (anon_sym_LPAREN, ACTIONS 770), (anon_sym_LT, ACTIONS 111),
     (sym_increment_operator, ACTIONS 113), (sym_minus_operator, ACTIONS 117),
     (anon_sym_BANG, ACTIONS 119), (anon_sym_TILDE, ACTIONS 121), (anon_sym_await, ACTIONS 432),
     (anon_sym_switch, ACTIONS 412), (anon_sym_for, ACTIONS 1031), (anon_sym_new, ACTIONS 155),
     (sym_const_builtin, ACTIONS 478), (anon_sym_this, ACTIONS 159),
     (anon_sym_super, ACTIONS 161), (anon_sym_SLASH_SLASH, ACTIONS 3),
     (anon_sym_SLASH_STAR, ACTIONS 5), (anon_sym_SLASH_SLASH_SLASH, ACTIONS 7),
     (sym__block_comment, ACTIONS 9), (sym__documentation_block_comment, ACTIONS 11)]"

lemma row_ok_414: "table_row_ok 414 ts_parse_table_414"
  by (simp add: row_simps ts_parse_table_414_def)

definition ts_parse_table_415 :: table_row where
  "ts_parse_table_415 = [
     (sym__bool_literal, STATE 2124), (sym__numeric_literal, STATE 2124),
     (sym_symbol_literal, STATE 2124), (sym_true, STATE 2120), (sym_false, STATE 2120),
     (sym_string_literal, STATE 2124), (sym__string_literal_double_quotes, STATE 1854),
     (sym__string_literal_single_quotes, STATE 1854),
     (sym__string_literal_double_quotes_multiple, STATE 1854),
     (sym__string_literal_single_quotes_multiple, STATE 1854),
     (sym__raw_string_literal_double_quotes, STATE 1854),
     (sym__raw_string_literal_single_quotes, STATE 1854),
     (sym__raw_string_literal_double_quotes_multiple, STATE 1854),
     (sym__raw_string_literal_single_quotes_multiple, STATE 1854),
     (sym_null_literal, STATE 2124), (sym_relational_operator, STATE 345),
     (sym_const_object_expression, STATE 2124), (sym_type_arguments, STATE 3171),
     (sym__guarded_pattern, STATE 3456), (sym__pattern, STATE 2666),
     (sym__logical_or_pattern, STATE 2373), (sym__logical_and_pattern, STATE 2152),
     (sym__relational_pattern, STATE 2147), (sym__unary_pattern, STATE 2230),
     (sym__primary_pattern, STATE 2129), (sym_cast_pattern, STATE 2231),
     (sym_null_check_pattern, STATE 2231), (sym_null_assert_pattern, STATE 2231),
     (sym_constant_pattern, STATE 2102), (sym_variable_pattern, STATE 2102),
     (sym__parenthesized_pattern, STATE 2102), (sym_list_pattern, STATE 2102),
     (sym_map_pattern, STATE 2102), (sym_record_pattern, STATE 2102),
     (sym_object_pattern, STATE 2102), (sym__type, STATE 3547),
     (sym__type_not_function, STATE 1796), (sym__type_not_void_not_function, STATE 1896),
     (sym_function_type, STATE 1848), (aux_sym__function_type_tails, STATE 1605),
     (sym__function_type_tail, STATE 1704), (sym_record_type, STATE 1805),
     (sym__type_name, STATE 2156), (sym__final_var_or_type, STATE 3469),
     (sym_inferred_type, STATE 3547), (sym_qualified, STATE 2124),
     (sym__function_builtin_identifier, STATE 1463), (sym_final_builtin, STATE 2100),
     (sym_comment, STATE 415), (sym_documentation_comment, STATE 415),
     (aux_sym_string_literal_repeat1, STATE 1475), (sym_identifier, ACTIONS 967),
     (anon_sym_POUND, ACTIONS 850), (sym_decimal_integer_literal, ACTIONS 852),
     (sym_hex_integer_literal, ACTIONS 854), (sym_decimal_floating_point_literal, ACTIONS 852),
     (anon_sym_true, ACTIONS 856), (anon_sym_false, ACTIONS 858), (anon_sym_DQUOTE, ACTIONS 860),
     (anon_sym_SQUOTE, ACTIONS 862), (anon_sym_DQUOTE_DQUOTE_DQUOTE, ACTIONS 864),
     (anon_sym_SQUOTE_SQUOTE_SQUOTE, ACTIONS 866), (anon_sym_r_DQUOTE, ACTIONS 868),
     (anon_sym_r_SQUOTE, ACTIONS 870), (anon_sym_r_DQUOTE_DQUOTE_DQUOTE, ACTIONS 872),
     (anon_sym_r_SQUOTE_SQUOTE_SQUOTE, ACTIONS 874), (anon_sym_LBRACE, ACTIONS 876),
     (anon_sym_LBRACK, ACTIONS 880), (anon_sym_null, ACTIONS 882),
     (anon_sym_LPAREN, ACTIONS 884), (sym_equality_operator, ACTIONS 396),
     (anon_sym_LT, ACTIONS 886), (anon_sym_GT, ACTIONS 400), (anon_sym_LT_EQ, ACTIONS 402),
     (anon_sym_GT_EQ, ACTIONS 402), (sym_minus_operator, ACTIONS 888),
     (anon_sym_final, ACTIONS 145), (sym_void_type, ACTIONS 33), (anon_sym_var, ACTIONS 35),
     (anon_sym_Function, ACTIONS 45), (sym_const_builtin, ACTIONS 894),
     (anon_sym_SLASH_SLASH, ACTIONS 3), (anon_sym_SLASH_STAR, ACTIONS 5),
     (anon_sym_SLASH_SLASH_SLASH, ACTIONS 7), (sym__block_comment, ACTIONS 9),
     (sym__documentation_block_comment, ACTIONS 11)]"

lemma row_ok_415: "table_row_ok 415 ts_parse_table_415"
  by (simp add: row_simps ts_parse_table_415_def)

definition ts_parse_table_416 :: table_row where
  "ts_parse_table_416 = [
     (sym__bool_literal, STATE 2124), (sym__numeric_literal, STATE 2124),
     (sym_symbol_literal, STATE 2124), (sym_true, STATE 2120), (sym_false, STATE 2120),
     (sym_string_literal, STATE 2124), (sym__string_literal_double_quotes, STATE 1854),
     (sym__string_literal_single_quotes, STATE 1854),
     (sym__string_literal_double_quotes_multiple, STATE 1854),
     (sym__string_literal_single_quotes_multiple, STATE 1854),
     (sym__raw_string_literal_double_quotes, STATE 1854),
     (sym__raw_string_literal_single_quotes, STATE 1854),
     (sym__raw_string_literal_double_quotes_multiple, STATE 1854),
     (sym__raw_string_literal_single_quotes_multiple, STATE 1854),
     (sym_null_literal, STATE 2124), (sym_relational_operator, STATE 345),
     (sym_const_object_expression, STATE 2124), (sym_type_arguments, STATE 3171),
     (sym__guarded_pattern, STATE 3280), (sym__pattern, STATE 2666),
     (sym__logical_or_pattern, STATE 2373), (sym__logical_and_pattern, STATE 2152),
     (sym__relational_pattern, STATE 2147), (sym__unary_pattern, STATE 2230),
     (sym__primary_pattern, STATE 2129), (sym_cast_pattern, STATE 2231),
     (sym_null_check_pattern, STATE 2231), (sym_null_assert_pattern, STATE 2231),
     (sym_constant_pattern, STATE 2102), (sym_variable_pattern, STATE 2102),
     (sym__parenthesized_pattern, STATE 2102), (sym_list_pattern, STATE 2102),
     (sym_map_pattern, STATE 2102), (sym_record_pattern, STATE 2102),
     (sym_object_pattern, STATE 2102), (sym__type, STATE 3547),
     (sym__type_not_function, STATE 1796), (sym__type_not_void_not_function, STATE 1896),
     (sym_function_type, STATE 1848), (aux_sym__function_type_tails, STATE 1605),
     (sym__function_type_tail, STATE 1704), (sym_record_type, STATE 1805),
     (sym__type_name, STATE 2156), (sym__final_var_or_type, STATE 3469),
     (sym_inferred_type, STATE 3547), (sym_qualified, STATE 2124),
     (sym__function_builtin_identifier, STATE 1463), (sym_final_builtin, STATE 2100),
     (sym_comment, STATE 416), (sym_documentation_comment, STATE 416),
     (aux_sym_string_literal_repeat1, STATE 1475), (sym_identifier, ACTIONS 967),
     (anon_sym_POUND, ACTIONS 850), (sym_decimal_integer_literal, ACTIONS 852),
     (sym_hex_integer_literal, ACTIONS 854), (sym_decimal_floating_point_literal, ACTIONS 852),
     (anon_sym_true, ACTIONS 856), (anon_sym_false, ACTIONS 858), (anon_sym_DQUOTE, ACTIONS 860),
     (anon_sym_SQUOTE, ACTIONS 862), (anon_sym_DQUOTE_DQUOTE_DQUOTE, ACTIONS 864),
     (anon_sym_SQUOTE_SQUOTE_SQUOTE, ACTIONS 866), (anon_sym_r_DQUOTE, ACTIONS 868),
     (anon_sym_r_SQUOTE, ACTIONS 870), (anon_sym_r_DQUOTE_DQUOTE_DQUOTE, ACTIONS 872),
     (anon_sym_r_SQUOTE_SQUOTE_SQUOTE, ACTIONS 874), (anon_sym_LBRACE, ACTIONS 876),
     (anon_sym_LBRACK, ACTIONS 880), (anon_sym_null, ACTIONS 882),
     (anon_sym_LPAREN, ACTIONS 884), (sym_equality_operator, ACTIONS 396),
     (anon_sym_LT, ACTIONS 886), (anon_sym_GT, ACTIONS 400), (anon_sym_LT_EQ, ACTIONS 402),
     (anon_sym_GT_EQ, ACTIONS 402), (sym_minus_operator, ACTIONS 888),
     (anon_sym_final, ACTIONS 145), (sym_void_type, ACTIONS 33), (anon_sym_var, ACTIONS 35),
     (anon_sym_Function, ACTIONS 45), (sym_const_builtin, ACTIONS 894),
     (anon_sym_SLASH_SLASH, ACTIONS 3), (anon_sym_SLASH_STAR, ACTIONS 5),
     (anon_sym_SLASH_SLASH_SLASH, ACTIONS 7), (sym__block_comment, ACTIONS 9),
     (sym__documentation_block_comment, ACTIONS 11)]"

lemma row_ok_416: "table_row_ok 416 ts_parse_table_416"
  by (simp add: row_simps ts_parse_table_416_def)

definition ts_parse_table_417 :: table_row where
  "ts_parse_table_417 = [
     (sym__bool_literal, STATE 1115), (sym__numeric_literal, STATE 1115),
     (sym__literal, STATE 1135), (sym_symbol_literal, STATE 1115), (sym_true, STATE 1165),
     (sym_false, STATE 1165), (sym_string_literal, STATE 1115),
     (sym__string_literal_double_quotes, STATE 729),
     (sym__string_literal_single_quotes, STATE 729),
     (sym__string_literal_double_quotes_multiple, STATE 729),
     (sym__string_literal_single_quotes_multiple, STATE 729),
     (sym__raw_string_literal_double_quotes, STATE 729),
     (sym__raw_string_literal_single_quotes, STATE 729),
     (sym__raw_string_literal_double_quotes_multiple, STATE 729),
     (sym__raw_string_literal_single_quotes_multiple, STATE 729), (sym_list_literal, STATE 1115),
     (sym_set_or_map_literal, STATE 1115), (sym_null_literal, STATE 1115),
     (sym_record_literal, STATE 1115), (sym__record_literal_no_const, STATE 1187),
     (sym_assignable_expression, STATE 3249), (sym_function_expression, STATE 1135),
     (sym__unary_expression, STATE 1154), (sym_unary_expression, STATE 1114),
     (sym__postfix_expression, STATE 1114), (sym_postfix_expression, STATE 1098),
     (sym_prefix_operator, STATE 417), (sym_negation_operator, STATE 1450),
     (sym__exclamation_operator, STATE 1451), (sym_tilde_operator, STATE 1359),
     (sym_await_expression, STATE 1093), (sym_new_expression, STATE 1135),
     (sym_const_object_expression, STATE 1135), (sym__primary, STATE 701),
     (sym_parenthesized_expression, STATE 1135), (sym_constructor_invocation, STATE 691),
     (sym_constructor_tearoff, STATE 1135), (sym_type_arguments, STATE 3081),
     (sym_switch_expression, STATE 1135), (sym_type_parameters, STATE 2932),
     (sym__type_name, STATE 2826), (sym__formal_parameter_part, STATE 2358),
     (sym_formal_parameter_list, STATE 2020), (sym__strict_formal_parameter_list, STATE 2016),
     (sym__new_builtin, STATE 2074), (sym_this, STATE 1135), (sym_super, STATE 2635),
     (sym_comment, STATE 417), (sym_documentation_comment, STATE 417),
     (aux_sym_string_literal_repeat1, STATE 595), (sym_identifier, ACTIONS 846),
     (anon_sym_POUND, ACTIONS 698), (sym_decimal_integer_literal, ACTIONS 700),
     (sym_hex_integer_literal, ACTIONS 702), (sym_decimal_floating_point_literal, ACTIONS 700),
     (anon_sym_true, ACTIONS 704), (anon_sym_false, ACTIONS 706), (anon_sym_DQUOTE, ACTIONS 708),
     (anon_sym_SQUOTE, ACTIONS 710), (anon_sym_DQUOTE_DQUOTE_DQUOTE, ACTIONS 712),
     (anon_sym_SQUOTE_SQUOTE_SQUOTE, ACTIONS 714), (anon_sym_r_DQUOTE, ACTIONS 716),
     (anon_sym_r_SQUOTE, ACTIONS 718), (anon_sym_r_DQUOTE_DQUOTE_DQUOTE, ACTIONS 720),
     (anon_sym_r_SQUOTE_SQUOTE_SQUOTE, ACTIONS 722), (anon_sym_LBRACE, ACTIONS 756),
     (anon_sym_LBRACK, ACTIONS 758), (anon_sym_null, ACTIONS 728),
     (anon_sym_LPAREN, ACTIONS 760), (anon_sym_LT, ACTIONS 111),
     (sym_increment_operator, ACTIONS 734), (sym_minus_operator, ACTIONS 736),
     (anon_sym_BANG, ACTIONS 119), (anon_sym_TILDE, ACTIONS 121), (anon_sym_await, ACTIONS 738),
     (anon_sym_switch, ACTIONS 740), (anon_sym_new, ACTIONS 155),
     (sym_const_builtin, ACTIONS 744), (anon_sym_this, ACTIONS 746),
     (anon_sym_super, ACTIONS 161), (anon_sym_SLASH_SLASH, ACTIONS 3),
     (anon_sym_SLASH_STAR, ACTIONS 5), (anon_sym_SLASH_SLASH_SLASH, ACTIONS 7),
     (sym__block_comment, ACTIONS 9), (sym__documentation_block_comment, ACTIONS 11)]"

lemma row_ok_417: "table_row_ok 417 ts_parse_table_417"
  by (simp add: row_simps ts_parse_table_417_def)

definition ts_parse_table_418 :: table_row where
  "ts_parse_table_418 = [
     (sym__bool_literal, STATE 2124), (sym__numeric_literal, STATE 2124),
     (sym_symbol_literal, STATE 2124), (sym_true, STATE 2120), (sym_false, STATE 2120),
     (sym_string_literal, STATE 2124), (sym__string_literal_double_quotes, STATE 1854),
     (sym__string_literal_single_quotes, STATE 1854),
     (sym__string_literal_double_quotes_multiple, STATE 1854),
     (sym__string_literal_single_quotes_multiple, STATE 1854),
     (sym__raw_string_literal_double_quotes, STATE 1854),
     (sym__raw_string_literal_single_quotes, STATE 1854),
     (sym__raw_string_literal_double_quotes_multiple, STATE 1854),
     (sym__raw_string_literal_single_quotes_multiple, STATE 1854),
     (sym_null_literal, STATE 2124), (sym_relational_operator, STATE 345),
     (sym_const_object_expression, STATE 2124), (sym_type_arguments, STATE 3171),
     (sym__pattern, STATE 3159), (sym__logical_or_pattern, STATE 2373),
     (sym__logical_and_pattern, STATE 2152), (sym__relational_pattern, STATE 2147),
     (sym__unary_pattern, STATE 2230), (sym__primary_pattern, STATE 2129),
     (sym_cast_pattern, STATE 2231), (sym_null_check_pattern, STATE 2231),
     (sym_null_assert_pattern, STATE 2231), (sym_constant_pattern, STATE 2102),
     (sym_variable_pattern, STATE 2102), (sym__parenthesized_pattern, STATE 2102),
     (sym_list_pattern, STATE 2102), (sym_map_pattern, STATE 2102),
     (sym_record_pattern, STATE 2102), (sym_object_pattern, STATE 2102), (sym__type, STATE 3547),
     (sym__type_not_function, STATE 1796), (sym__type_not_void_not_function, STATE 1896),
     (sym_function_type, STATE 1848), (aux_sym__function_type_tails, STATE 1605),
     (sym__function_type_tail, STATE 1704), (sym_record_type, STATE 1805),
     (sym__type_name, STATE 2156), (sym__final_var_or_type, STATE 3469),
     (sym_inferred_type, STATE 3547), (sym_qualified, STATE 2124),
     (sym__function_builtin_identifier, STATE 1463), (sym_final_builtin, STATE 2100),
     (sym_comment, STATE 418), (sym_documentation_comment, STATE 418),
     (aux_sym_string_literal_repeat1, STATE 1475), (sym_identifier, ACTIONS 967),
     (anon_sym_POUND, ACTIONS 850), (sym_decimal_integer_literal, ACTIONS 852),
     (sym_hex_integer_literal, ACTIONS 854), (sym_decimal_floating_point_literal, ACTIONS 852),
     (anon_sym_true, ACTIONS 856), (anon_sym_false, ACTIONS 858), (anon_sym_DQUOTE, ACTIONS 860),
     (anon_sym_SQUOTE, ACTIONS 862), (anon_sym_DQUOTE_DQUOTE_DQUOTE, ACTIONS 864),
     (anon_sym_SQUOTE_SQUOTE_SQUOTE, ACTIONS 866), (anon_sym_r_DQUOTE, ACTIONS 868),
     (anon_sym_r_SQUOTE, ACTIONS 870), (anon_sym_r_DQUOTE_DQUOTE_DQUOTE, ACTIONS 872),
     (anon_sym_r_SQUOTE_SQUOTE_SQUOTE, ACTIONS 874), (anon_sym_LBRACE, ACTIONS 876),
     (anon_sym_LBRACK, ACTIONS 880), (anon_sym_null, ACTIONS 882),
     (anon_sym_LPAREN, ACTIONS 884), (sym_equality_operator, ACTIONS 396),
     (anon_sym_LT, ACTIONS 886), (anon_sym_GT, ACTIONS 400), (anon_sym_LT_EQ, ACTIONS 402),
     (anon_sym_GT_EQ, ACTIONS 402), (sym_minus_operator, ACTIONS 888),
     (anon_sym_final, ACTIONS 145), (sym_void_type, ACTIONS 33), (anon_sym_var, ACTIONS 35),
     (anon_sym_Function, ACTIONS 45), (sym_const_builtin, ACTIONS 894),
     (anon_sym_SLASH_SLASH, ACTIONS 3), (anon_sym_SLASH_STAR, ACTIONS 5),
     (anon_sym_SLASH_SLASH_SLASH, ACTIONS 7), (sym__block_comment, ACTIONS 9),
     (sym__documentation_block_comment, ACTIONS 11)]"

lemma row_ok_418: "table_row_ok 418 ts_parse_table_418"
  by (simp add: row_simps ts_parse_table_418_def)

definition ts_parse_table_419 :: table_row where
  "ts_parse_table_419 = [
     (sym__bool_literal, STATE 989), (sym__numeric_literal, STATE 989),
     (sym__literal, STATE 962), (sym_symbol_literal, STATE 989), (sym_true, STATE 900),
     (sym_false, STATE 900), (sym_string_literal, STATE 989),
     (sym__string_literal_double_quotes, STATE 627),
     (sym__string_literal_single_quotes, STATE 627),
     (sym__string_literal_double_quotes_multiple, STATE 627),
     (sym__string_literal_single_quotes_multiple, STATE 627),
     (sym__raw_string_literal_double_quotes, STATE 627),
     (sym__raw_string_literal_single_quotes, STATE 627),
     (sym__raw_string_literal_double_quotes_multiple, STATE 627),
     (sym__raw_string_literal_single_quotes_multiple, STATE 627), (sym_list_literal, STATE 989),
     (sym_set_or_map_literal, STATE 989), (sym_null_literal, STATE 989),
     (sym_record_literal, STATE 989), (sym__record_literal_no_const, STATE 924),
     (sym_assignable_expression, STATE 3122), (sym_function_expression, STATE 962),
     (sym__unary_expression, STATE 1316), (sym_unary_expression, STATE 1303),
     (sym__postfix_expression, STATE 1303), (sym_postfix_expression, STATE 1301),
     (sym_prefix_operator, STATE 431), (sym_negation_operator, STATE 1450),
     (sym__exclamation_operator, STATE 1451), (sym_tilde_operator, STATE 1385),
     (sym_await_expression, STATE 1302), (sym_new_expression, STATE 962),
     (sym_const_object_expression, STATE 962), (sym__primary, STATE 674),
     (sym_parenthesized_expression, STATE 962), (sym_constructor_invocation, STATE 654),
     (sym_constructor_tearoff, STATE 962), (sym_type_arguments, STATE 3146),
     (sym_switch_expression, STATE 962), (sym_type_parameters, STATE 2932),
     (sym__type_name, STATE 2859), (sym__formal_parameter_part, STATE 2339),
     (sym_formal_parameter_list, STATE 2020), (sym__strict_formal_parameter_list, STATE 2016),
     (sym__new_builtin, STATE 2079), (sym_this, STATE 962), (sym_super, STATE 2594),
     (sym_comment, STATE 419), (sym_documentation_comment, STATE 419),
     (aux_sym_string_literal_repeat1, STATE 474), (sym_identifier, ACTIONS 844),
     (anon_sym_POUND, ACTIONS 73), (sym_decimal_integer_literal, ACTIONS 75),
     (sym_hex_integer_literal, ACTIONS 77), (sym_decimal_floating_point_literal, ACTIONS 75),
     (anon_sym_true, ACTIONS 79), (anon_sym_false, ACTIONS 81), (anon_sym_DQUOTE, ACTIONS 83),
     (anon_sym_SQUOTE, ACTIONS 85), (anon_sym_DQUOTE_DQUOTE_DQUOTE, ACTIONS 87),
     (anon_sym_SQUOTE_SQUOTE_SQUOTE, ACTIONS 89), (anon_sym_r_DQUOTE, ACTIONS 91),
     (anon_sym_r_SQUOTE, ACTIONS 93), (anon_sym_r_DQUOTE_DQUOTE_DQUOTE, ACTIONS 95),
     (anon_sym_r_SQUOTE_SQUOTE_SQUOTE, ACTIONS 97), (anon_sym_LBRACE, ACTIONS 766),
     (anon_sym_LBRACK, ACTIONS 768), (anon_sym_null, ACTIONS 105),
     (anon_sym_LPAREN, ACTIONS 770), (anon_sym_LT, ACTIONS 111),
     (sym_increment_operator, ACTIONS 113), (sym_minus_operator, ACTIONS 117),
     (anon_sym_BANG, ACTIONS 119), (anon_sym_TILDE, ACTIONS 121), (anon_sym_await, ACTIONS 432),
     (anon_sym_switch, ACTIONS 412), (anon_sym_new, ACTIONS 155),
     (sym_const_builtin, ACTIONS 478), (anon_sym_this, ACTIONS 159),
     (anon_sym_super, ACTIONS 161), (anon_sym_SLASH_SLASH, ACTIONS 3),
     (anon_sym_SLASH_STAR, ACTIONS 5), (anon_sym_SLASH_SLASH_SLASH, ACTIONS 7),
     (sym__block_comment, ACTIONS 9), (sym__documentation_block_comment, ACTIONS 11)]"

lemma row_ok_419: "table_row_ok 419 ts_parse_table_419"
  by (simp add: row_simps ts_parse_table_419_def)

definition ts_parse_table_420 :: table_row where
  "ts_parse_table_420 = [
     (sym__bool_literal, STATE 1279), (sym__numeric_literal, STATE 1279),
     (sym__literal, STATE 1278), (sym_symbol_literal, STATE 1279), (sym_true, STATE 1275),
     (sym_false, STATE 1275), (sym_string_literal, STATE 1279),
     (sym__string_literal_double_quotes, STATE 799),
     (sym__string_literal_single_quotes, STATE 799),
     (sym__string_literal_double_quotes_multiple, STATE 799),
     (sym__string_literal_single_quotes_multiple, STATE 799),
     (sym__raw_string_literal_double_quotes, STATE 799),
     (sym__raw_string_literal_single_quotes, STATE 799),
     (sym__raw_string_literal_double_quotes_multiple, STATE 799),
     (sym__raw_string_literal_single_quotes_multiple, STATE 799), (sym_list_literal, STATE 1279),
     (sym_set_or_map_literal, STATE 1279), (sym_null_literal, STATE 1279),
     (sym_record_literal, STATE 1279), (sym__record_literal_no_const, STATE 1268),
     (sym_assignable_expression, STATE 3162), (sym_function_expression, STATE 1278),
     (sym__unary_expression, STATE 1482), (sym_unary_expression, STATE 1480),
     (sym__postfix_expression, STATE 1480), (sym_postfix_expression, STATE 1481),
     (sym_prefix_operator, STATE 428), (sym_negation_operator, STATE 1450),
     (sym__exclamation_operator, STATE 1451), (sym_tilde_operator, STATE 1387),
     (sym_await_expression, STATE 1483), (sym_new_expression, STATE 1278),
     (sym_const_object_expression, STATE 1278), (sym__primary, STATE 719),
     (sym_parenthesized_expression, STATE 1278), (sym_constructor_invocation, STATE 728),
     (sym_constructor_tearoff, STATE 1278), (sym_type_arguments, STATE 3100),
     (sym_switch_expression, STATE 1278), (sym_type_parameters, STATE 2932),
     (sym__type_name, STATE 2949), (sym__formal_parameter_part, STATE 2342),
     (sym_formal_parameter_list, STATE 2020), (sym__strict_formal_parameter_list, STATE 2016),
     (sym__new_builtin, STATE 2091), (sym_this, STATE 1278), (sym_super, STATE 2609),
     (sym_comment, STATE 420), (sym_documentation_comment, STATE 420),
     (aux_sym_string_literal_repeat1, STATE 609), (sym_identifier, ACTIONS 842),
     (anon_sym_POUND, ACTIONS 776), (sym_decimal_integer_literal, ACTIONS 778),
     (sym_hex_integer_literal, ACTIONS 780), (sym_decimal_floating_point_literal, ACTIONS 778),
     (anon_sym_true, ACTIONS 782), (anon_sym_false, ACTIONS 784), (anon_sym_DQUOTE, ACTIONS 786),
     (anon_sym_SQUOTE, ACTIONS 788), (anon_sym_DQUOTE_DQUOTE_DQUOTE, ACTIONS 790),
     (anon_sym_SQUOTE_SQUOTE_SQUOTE, ACTIONS 792), (anon_sym_r_DQUOTE, ACTIONS 794),
     (anon_sym_r_SQUOTE, ACTIONS 796), (anon_sym_r_DQUOTE_DQUOTE_DQUOTE, ACTIONS 798),
     (anon_sym_r_SQUOTE_SQUOTE_SQUOTE, ACTIONS 800), (anon_sym_LBRACE, ACTIONS 802),
     (anon_sym_LBRACK, ACTIONS 804), (anon_sym_null, ACTIONS 806),
     (anon_sym_LPAREN, ACTIONS 808), (anon_sym_LT, ACTIONS 111),
     (sym_increment_operator, ACTIONS 812), (sym_minus_operator, ACTIONS 814),
     (anon_sym_BANG, ACTIONS 119), (anon_sym_TILDE, ACTIONS 121), (anon_sym_await, ACTIONS 816),
     (anon_sym_switch, ACTIONS 818), (anon_sym_new, ACTIONS 155),
     (sym_const_builtin, ACTIONS 820), (anon_sym_this, ACTIONS 822),
     (anon_sym_super, ACTIONS 161), (anon_sym_SLASH_SLASH, ACTIONS 3),
     (anon_sym_SLASH_STAR, ACTIONS 5), (anon_sym_SLASH_SLASH_SLASH, ACTIONS 7),
     (sym__block_comment, ACTIONS 9), (sym__documentation_block_comment, ACTIONS 11)]"

lemma row_ok_420: "table_row_ok 420 ts_parse_table_420"
  by (simp add: row_simps ts_parse_table_420_def)

definition ts_parse_table_421 :: table_row where
  "ts_parse_table_421 = [
     (sym__bool_literal, STATE 989), (sym__numeric_literal, STATE 989),
     (sym__literal, STATE 962), (sym_symbol_literal, STATE 989), (sym_true, STATE 900),
     (sym_false, STATE 900), (sym_string_literal, STATE 989),
     (sym__string_literal_double_quotes, STATE 627),
     (sym__string_literal_single_quotes, STATE 627),
     (sym__string_literal_double_quotes_multiple, STATE 627),
     (sym__string_literal_single_quotes_multiple, STATE 627),
     (sym__raw_string_literal_double_quotes, STATE 627),
     (sym__raw_string_literal_single_quotes, STATE 627),
     (sym__raw_string_literal_double_quotes_multiple, STATE 627),
     (sym__raw_string_literal_single_quotes_multiple, STATE 627), (sym_list_literal, STATE 989),
     (sym_set_or_map_literal, STATE 989), (sym_null_literal, STATE 989),
     (sym_record_literal, STATE 989), (sym__record_literal_no_const, STATE 924),
     (sym_assignable_expression, STATE 3070), (sym_function_expression, STATE 962),
     (sym__unary_expression, STATE 969), (sym_unary_expression, STATE 994),
     (sym__postfix_expression, STATE 994), (sym_postfix_expression, STATE 993),
     (sym_prefix_operator, STATE 421), (sym_negation_operator, STATE 1450),
     (sym__exclamation_operator, STATE 1451), (sym_tilde_operator, STATE 1357),
     (sym_await_expression, STATE 991), (sym_new_expression, STATE 962),
     (sym_const_object_expression, STATE 962), (sym__primary, STATE 659),
     (sym_parenthesized_expression, STATE 962), (sym_constructor_invocation, STATE 654),
     (sym_constructor_tearoff, STATE 962), (sym_type_arguments, STATE 3146),
     (sym_switch_expression, STATE 962), (sym_type_parameters, STATE 2932),
     (sym__type_name, STATE 2859), (sym__formal_parameter_part, STATE 2339),
     (sym_formal_parameter_list, STATE 2020), (sym__strict_formal_parameter_list, STATE 2016),
     (sym__new_builtin, STATE 2079), (sym_this, STATE 962), (sym_super, STATE 2594),
     (sym_comment, STATE 421), (sym_documentation_comment, STATE 421),
     (aux_sym_string_literal_repeat1, STATE 474), (sym_identifier, ACTIONS 844),
     (anon_sym_POUND, ACTIONS 73), (sym_decimal_integer_literal, ACTIONS 75),
     (sym_hex_integer_literal, ACTIONS 77), (sym_decimal_floating_point_literal, ACTIONS 75),
     (anon_sym_true, ACTIONS 79), (anon_sym_false, ACTIONS 81), (anon_sym_DQUOTE, ACTIONS 83),
     (anon_sym_SQUOTE, ACTIONS 85), (anon_sym_DQUOTE_DQUOTE_DQUOTE, ACTIONS 87),
     (anon_sym_SQUOTE_SQUOTE_SQUOTE, ACTIONS 89), (anon_sym_r_DQUOTE, ACTIONS 91),
     (anon_sym_r_SQUOTE, ACTIONS 93), (anon_sym_r_DQUOTE_DQUOTE_DQUOTE, ACTIONS 95),
     (anon_sym_r_SQUOTE_SQUOTE_SQUOTE, ACTIONS 97), (anon_sym_LBRACE, ACTIONS 766),
     (anon_sym_LBRACK, ACTIONS 768), (anon_sym_null, ACTIONS 105),
     (anon_sym_LPAREN, ACTIONS 770), (anon_sym_LT, ACTIONS 111),
     (sym_increment_operator, ACTIONS 688), (sym_minus_operator, ACTIONS 690),
     (anon_sym_BANG, ACTIONS 119), (anon_sym_TILDE, ACTIONS 121), (anon_sym_await, ACTIONS 692),
     (anon_sym_switch, ACTIONS 412), (anon_sym_new, ACTIONS 155),
     (sym_const_builtin, ACTIONS 478), (anon_sym_this, ACTIONS 159),
     (anon_sym_super, ACTIONS 161), (anon_sym_SLASH_SLASH, ACTIONS 3),
     (anon_sym_SLASH_STAR, ACTIONS 5), (anon_sym_SLASH_SLASH_SLASH, ACTIONS 7),
     (sym__block_comment, ACTIONS 9), (sym__documentation_block_comment, ACTIONS 11)]"

lemma row_ok_421: "table_row_ok 421 ts_parse_table_421"
  by (simp add: row_simps ts_parse_table_421_def)

definition ts_parse_table_422 :: table_row where
  "ts_parse_table_422 = [
     (sym__bool_literal, STATE 2124), (sym__numeric_literal, STATE 2124),
     (sym_symbol_literal, STATE 2124), (sym_true, STATE 2120), (sym_false, STATE 2120),
     (sym_string_literal, STATE 2124), (sym__string_literal_double_quotes, STATE 1854),
     (sym__string_literal_single_quotes, STATE 1854),
     (sym__string_literal_double_quotes_multiple, STATE 1854),
     (sym__string_literal_single_quotes_multiple, STATE 1854),
     (sym__raw_string_literal_double_quotes, STATE 1854),
     (sym__raw_string_literal_single_quotes, STATE 1854),
     (sym__raw_string_literal_double_quotes_multiple, STATE 1854),
     (sym__raw_string_literal_single_quotes_multiple, STATE 1854),
     (sym_null_literal, STATE 2124), (sym_relational_operator, STATE 345),
     (sym_const_object_expression, STATE 2124), (sym_type_arguments, STATE 3171),
     (sym__pattern, STATE 3191), (sym__logical_or_pattern, STATE 2373),
     (sym__logical_and_pattern, STATE 2152), (sym__relational_pattern, STATE 2147),
     (sym__unary_pattern, STATE 2230), (sym__primary_pattern, STATE 2129),
     (sym_cast_pattern, STATE 2231), (sym_null_check_pattern, STATE 2231),
     (sym_null_assert_pattern, STATE 2231), (sym_constant_pattern, STATE 2102),
     (sym_variable_pattern, STATE 2102), (sym__parenthesized_pattern, STATE 2102),
     (sym_list_pattern, STATE 2102), (sym_map_pattern, STATE 2102),
     (sym_record_pattern, STATE 2102), (sym_object_pattern, STATE 2102), (sym__type, STATE 3547),
     (sym__type_not_function, STATE 1796), (sym__type_not_void_not_function, STATE 1896),
     (sym_function_type, STATE 1848), (aux_sym__function_type_tails, STATE 1605),
     (sym__function_type_tail, STATE 1704), (sym_record_type, STATE 1805),
     (sym__type_name, STATE 2156), (sym__final_var_or_type, STATE 3469),
     (sym_inferred_type, STATE 3547), (sym_qualified, STATE 2124),
     (sym__function_builtin_identifier, STATE 1463), (sym_final_builtin, STATE 2100),
     (sym_comment, STATE 422), (sym_documentation_comment, STATE 422),
     (aux_sym_string_literal_repeat1, STATE 1475), (sym_identifier, ACTIONS 967),
     (anon_sym_POUND, ACTIONS 850), (sym_decimal_integer_literal, ACTIONS 852),
     (sym_hex_integer_literal, ACTIONS 854), (sym_decimal_floating_point_literal, ACTIONS 852),
     (anon_sym_true, ACTIONS 856), (anon_sym_false, ACTIONS 858), (anon_sym_DQUOTE, ACTIONS 860),
     (anon_sym_SQUOTE, ACTIONS 862), (anon_sym_DQUOTE_DQUOTE_DQUOTE, ACTIONS 864),
     (anon_sym_SQUOTE_SQUOTE_SQUOTE, ACTIONS 866), (anon_sym_r_DQUOTE, ACTIONS 868),
     (anon_sym_r_SQUOTE, ACTIONS 870), (anon_sym_r_DQUOTE_DQUOTE_DQUOTE, ACTIONS 872),
     (anon_sym_r_SQUOTE_SQUOTE_SQUOTE, ACTIONS 874), (anon_sym_LBRACE, ACTIONS 876),
     (anon_sym_LBRACK, ACTIONS 880), (anon_sym_null, ACTIONS 882),
     (anon_sym_LPAREN, ACTIONS 884), (sym_equality_operator, ACTIONS 396),
     (anon_sym_LT, ACTIONS 886), (anon_sym_GT, ACTIONS 400), (anon_sym_LT_EQ, ACTIONS 402),
     (anon_sym_GT_EQ, ACTIONS 402), (sym_minus_operator, ACTIONS 888),
     (anon_sym_final, ACTIONS 145), (sym_void_type, ACTIONS 33), (anon_sym_var, ACTIONS 35),
     (anon_sym_Function, ACTIONS 45), (sym_const_builtin, ACTIONS 894),
     (anon_sym_SLASH_SLASH, ACTIONS 3), (anon_sym_SLASH_STAR, ACTIONS 5),
     (anon_sym_SLASH_SLASH_SLASH, ACTIONS 7), (sym__block_comment, ACTIONS 9),
     (sym__documentation_block_comment, ACTIONS 11)]"

lemma row_ok_422: "table_row_ok 422 ts_parse_table_422"
  by (simp add: row_simps ts_parse_table_422_def)

definition ts_parse_table_423 :: table_row where
  "ts_parse_table_423 = [
     (sym__bool_literal, STATE 2124), (sym__numeric_literal, STATE 2124),
     (sym_symbol_literal, STATE 2124), (sym_true, STATE 2120), (sym_false, STATE 2120),
     (sym_string_literal, STATE 2124), (sym__string_literal_double_quotes, STATE 1854),
     (sym__string_literal_single_quotes, STATE 1854),
     (sym__string_literal_double_quotes_multiple, STATE 1854),
     (sym__string_literal_single_quotes_multiple, STATE 1854),
     (sym__raw_string_literal_double_quotes, STATE 1854),
     (sym__raw_string_literal_single_quotes, STATE 1854),
     (sym__raw_string_literal_double_quotes_multiple, STATE 1854),
     (sym__raw_string_literal_single_quotes_multiple, STATE 1854),
     (sym_null_literal, STATE 2124), (sym_relational_operator, STATE 345),
     (sym_const_object_expression, STATE 2124), (sym_type_arguments, STATE 3171),
     (sym__pattern, STATE 3257), (sym__logical_or_pattern, STATE 2373),
     (sym__logical_and_pattern, STATE 2152), (sym__relational_pattern, STATE 2147),
     (sym__unary_pattern, STATE 2230), (sym__primary_pattern, STATE 2129),
     (sym_cast_pattern, STATE 2231), (sym_null_check_pattern, STATE 2231),
     (sym_null_assert_pattern, STATE 2231), (sym_constant_pattern, STATE 2102),
     (sym_variable_pattern, STATE 2102), (sym__parenthesized_pattern, STATE 2102),
     (sym_list_pattern, STATE 2102), (sym_map_pattern, STATE 2102),
     (sym_record_pattern, STATE 2102), (sym_object_pattern, STATE 2102), (sym__type, STATE 3547),
     (sym__type_not_function, STATE 1796), (sym__type_not_void_not_function, STATE 1896),
     (sym_function_type, STATE 1848), (aux_sym__function_type_tails, STATE 1605),
     (sym__function_type_tail, STATE 1704), (sym_record_type, STATE 1805),
     (sym__type_name, STATE 2156), (sym__final_var_or_type, STATE 3469),
     (sym_inferred_type, STATE 3547), (sym_qualified, STATE 2124),
     (sym__function_builtin_identifier, STATE 1463), (sym_final_builtin, STATE 2100),
     (sym_comment, STATE 423), (sym_documentation_comment, STATE 423),
     (aux_sym_string_literal_repeat1, STATE 1475), (sym_identifier, ACTIONS 967),
     (anon_sym_POUND, ACTIONS 850), (sym_decimal_integer_literal, ACTIONS 852),
     (sym_hex_integer_literal, ACTIONS 854), (sym_decimal_floating_point_literal, ACTIONS 852),
     (anon_sym_true, ACTIONS 856), (anon_sym_false, ACTIONS 858), (anon_sym_DQUOTE, ACTIONS 860),
     (anon_sym_SQUOTE, ACTIONS 862), (anon_sym_DQUOTE_DQUOTE_DQUOTE, ACTIONS 864),
     (anon_sym_SQUOTE_SQUOTE_SQUOTE, ACTIONS 866), (anon_sym_r_DQUOTE, ACTIONS 868),
     (anon_sym_r_SQUOTE, ACTIONS 870), (anon_sym_r_DQUOTE_DQUOTE_DQUOTE, ACTIONS 872),
     (anon_sym_r_SQUOTE_SQUOTE_SQUOTE, ACTIONS 874), (anon_sym_LBRACE, ACTIONS 876),
     (anon_sym_LBRACK, ACTIONS 880), (anon_sym_null, ACTIONS 882),
     (anon_sym_LPAREN, ACTIONS 884), (sym_equality_operator, ACTIONS 396),
     (anon_sym_LT, ACTIONS 886), (anon_sym_GT, ACTIONS 400), (anon_sym_LT_EQ, ACTIONS 402),
     (anon_sym_GT_EQ, ACTIONS 402), (sym_minus_operator, ACTIONS 888),
     (anon_sym_final, ACTIONS 145), (sym_void_type, ACTIONS 33), (anon_sym_var, ACTIONS 35),
     (anon_sym_Function, ACTIONS 45), (sym_const_builtin, ACTIONS 894),
     (anon_sym_SLASH_SLASH, ACTIONS 3), (anon_sym_SLASH_STAR, ACTIONS 5),
     (anon_sym_SLASH_SLASH_SLASH, ACTIONS 7), (sym__block_comment, ACTIONS 9),
     (sym__documentation_block_comment, ACTIONS 11)]"

lemma row_ok_423: "table_row_ok 423 ts_parse_table_423"
  by (simp add: row_simps ts_parse_table_423_def)

definition ts_parse_table_424 :: table_row where
  "ts_parse_table_424 = [
     (sym__bool_literal, STATE 989), (sym__numeric_literal, STATE 989),
     (sym__literal, STATE 962), (sym_symbol_literal, STATE 989), (sym_true, STATE 900),
     (sym_false, STATE 900), (sym_string_literal, STATE 989),
     (sym__string_literal_double_quotes, STATE 627),
     (sym__string_literal_single_quotes, STATE 627),
     (sym__string_literal_double_quotes_multiple, STATE 627),
     (sym__string_literal_single_quotes_multiple, STATE 627),
     (sym__raw_string_literal_double_quotes, STATE 627),
     (sym__raw_string_literal_single_quotes, STATE 627),
     (sym__raw_string_literal_double_quotes_multiple, STATE 627),
     (sym__raw_string_literal_single_quotes_multiple, STATE 627), (sym_list_literal, STATE 989),
     (sym_set_or_map_literal, STATE 989), (sym_null_literal, STATE 989),
     (sym_record_literal, STATE 989), (sym__record_literal_no_const, STATE 924),
     (sym_assignable_expression, STATE 3122), (sym_function_expression, STATE 962),
     (sym__unary_expression, STATE 1313), (sym_unary_expression, STATE 1303),
     (sym__postfix_expression, STATE 1303), (sym_postfix_expression, STATE 1301),
     (sym_prefix_operator, STATE 431), (sym_negation_operator, STATE 1450),
     (sym__exclamation_operator, STATE 1451), (sym_tilde_operator, STATE 1385),
     (sym_await_expression, STATE 1302), (sym_new_expression, STATE 962),
     (sym_const_object_expression, STATE 962), (sym__primary, STATE 674),
     (sym_parenthesized_expression, STATE 962), (sym_constructor_invocation, STATE 654),
     (sym_constructor_tearoff, STATE 962), (sym_type_arguments, STATE 3146),
     (sym_switch_expression, STATE 962), (sym_type_parameters, STATE 2932),
     (sym__type_name, STATE 2859), (sym__formal_parameter_part, STATE 2339),
     (sym_formal_parameter_list, STATE 2020), (sym__strict_formal_parameter_list, STATE 2016),
     (sym__new_builtin, STATE 2079), (sym_this, STATE 962), (sym_super, STATE 2594),
     (sym_comment, STATE 424), (sym_documentation_comment, STATE 424),
     (aux_sym_string_literal_repeat1, STATE 474), (sym_identifier, ACTIONS 844),
     (anon_sym_POUND, ACTIONS 73), (sym_decimal_integer_literal, ACTIONS 75),
     (sym_hex_integer_literal, ACTIONS 77), (sym_decimal_floating_point_literal, ACTIONS 75),
     (anon_sym_true, ACTIONS 79), (anon_sym_false, ACTIONS 81), (anon_sym_DQUOTE, ACTIONS 83),
     (anon_sym_SQUOTE, ACTIONS 85), (anon_sym_DQUOTE_DQUOTE_DQUOTE, ACTIONS 87),
     (anon_sym_SQUOTE_SQUOTE_SQUOTE, ACTIONS 89), (anon_sym_r_DQUOTE, ACTIONS 91),
     (anon_sym_r_SQUOTE, ACTIONS 93), (anon_sym_r_DQUOTE_DQUOTE_DQUOTE, ACTIONS 95),
     (anon_sym_r_SQUOTE_SQUOTE_SQUOTE, ACTIONS 97), (anon_sym_LBRACE, ACTIONS 766),
     (anon_sym_LBRACK, ACTIONS 768), (anon_sym_null, ACTIONS 105),
     (anon_sym_LPAREN, ACTIONS 770), (anon_sym_LT, ACTIONS 111),
     (sym_increment_operator, ACTIONS 113), (sym_minus_operator, ACTIONS 117),
     (anon_sym_BANG, ACTIONS 119), (anon_sym_TILDE, ACTIONS 121), (anon_sym_await, ACTIONS 432),
     (anon_sym_switch, ACTIONS 412), (anon_sym_new, ACTIONS 155),
     (sym_const_builtin, ACTIONS 478), (anon_sym_this, ACTIONS 159),
     (anon_sym_super, ACTIONS 161), (anon_sym_SLASH_SLASH, ACTIONS 3),
     (anon_sym_SLASH_STAR, ACTIONS 5), (anon_sym_SLASH_SLASH_SLASH, ACTIONS 7),
     (sym__block_comment, ACTIONS 9), (sym__documentation_block_comment, ACTIONS 11)]"

lemma row_ok_424: "table_row_ok 424 ts_parse_table_424"
  by (simp add: row_simps ts_parse_table_424_def)

definition ts_parse_table_425 :: table_row where
  "ts_parse_table_425 = [
     (sym__bool_literal, STATE 1115), (sym__numeric_literal, STATE 1115),
     (sym__literal, STATE 1135), (sym_symbol_literal, STATE 1115), (sym_true, STATE 1165),
     (sym_false, STATE 1165), (sym_string_literal, STATE 1115),
     (sym__string_literal_double_quotes, STATE 729),
     (sym__string_literal_single_quotes, STATE 729),
     (sym__string_literal_double_quotes_multiple, STATE 729),
     (sym__string_literal_single_quotes_multiple, STATE 729),
     (sym__raw_string_literal_double_quotes, STATE 729),
     (sym__raw_string_literal_single_quotes, STATE 729),
     (sym__raw_string_literal_double_quotes_multiple, STATE 729),
     (sym__raw_string_literal_single_quotes_multiple, STATE 729), (sym_list_literal, STATE 1115),
     (sym_set_or_map_literal, STATE 1115), (sym_null_literal, STATE 1115),
     (sym_record_literal, STATE 1115), (sym__record_literal_no_const, STATE 1187),
     (sym_assignable_expression, STATE 3249), (sym_function_expression, STATE 1135),
     (sym__unary_expression, STATE 1190), (sym_unary_expression, STATE 1114),
     (sym__postfix_expression, STATE 1114), (sym_postfix_expression, STATE 1098),
     (sym_prefix_operator, STATE 417), (sym_negation_operator, STATE 1450),
     (sym__exclamation_operator, STATE 1451), (sym_tilde_operator, STATE 1359),
     (sym_await_expression, STATE 1093), (sym_new_expression, STATE 1135),
     (sym_const_object_expression, STATE 1135), (sym__primary, STATE 701),
     (sym_parenthesized_expression, STATE 1135), (sym_constructor_invocation, STATE 691),
     (sym_constructor_tearoff, STATE 1135), (sym_type_arguments, STATE 3081),
     (sym_switch_expression, STATE 1135), (sym_type_parameters, STATE 2932),
     (sym__type_name, STATE 2826), (sym__formal_parameter_part, STATE 2358),
     (sym_formal_parameter_list, STATE 2020), (sym__strict_formal_parameter_list, STATE 2016),
     (sym__new_builtin, STATE 2074), (sym_this, STATE 1135), (sym_super, STATE 2635),
     (sym_comment, STATE 425), (sym_documentation_comment, STATE 425),
     (aux_sym_string_literal_repeat1, STATE 595), (sym_identifier, ACTIONS 846),
     (anon_sym_POUND, ACTIONS 698), (sym_decimal_integer_literal, ACTIONS 700),
     (sym_hex_integer_literal, ACTIONS 702), (sym_decimal_floating_point_literal, ACTIONS 700),
     (anon_sym_true, ACTIONS 704), (anon_sym_false, ACTIONS 706), (anon_sym_DQUOTE, ACTIONS 708),
     (anon_sym_SQUOTE, ACTIONS 710), (anon_sym_DQUOTE_DQUOTE_DQUOTE, ACTIONS 712),
     (anon_sym_SQUOTE_SQUOTE_SQUOTE, ACTIONS 714), (anon_sym_r_DQUOTE, ACTIONS 716),
     (anon_sym_r_SQUOTE, ACTIONS 718), (anon_sym_r_DQUOTE_DQUOTE_DQUOTE, ACTIONS 720),
     (anon_sym_r_SQUOTE_SQUOTE_SQUOTE, ACTIONS 722), (anon_sym_LBRACE, ACTIONS 756),
     (anon_sym_LBRACK, ACTIONS 758), (anon_sym_null, ACTIONS 728),
     (anon_sym_LPAREN, ACTIONS 760), (anon_sym_LT, ACTIONS 111),
     (sym_increment_operator, ACTIONS 734), (sym_minus_operator, ACTIONS 736),
     (anon_sym_BANG, ACTIONS 119), (anon_sym_TILDE, ACTIONS 121), (anon_sym_await, ACTIONS 738),
     (anon_sym_switch, ACTIONS 740), (anon_sym_new, ACTIONS 155),
     (sym_const_builtin, ACTIONS 744), (anon_sym_this, ACTIONS 746),
     (anon_sym_super, ACTIONS 161), (anon_sym_SLASH_SLASH, ACTIONS 3),
     (anon_sym_SLASH_STAR, ACTIONS 5), (anon_sym_SLASH_SLASH_SLASH, ACTIONS 7),
     (sym__block_comment, ACTIONS 9), (sym__documentation_block_comment, ACTIONS 11)]"

lemma row_ok_425: "table_row_ok 425 ts_parse_table_425"
  by (simp add: row_simps ts_parse_table_425_def)

definition ts_parse_table_426 :: table_row where
  "ts_parse_table_426 = [
     (sym__bool_literal, STATE 1279), (sym__numeric_literal, STATE 1279),
     (sym__literal, STATE 1278), (sym_symbol_literal, STATE 1279), (sym_true, STATE 1275),
     (sym_false, STATE 1275), (sym_string_literal, STATE 1279),
     (sym__string_literal_double_quotes, STATE 799),
     (sym__string_literal_single_quotes, STATE 799),
     (sym__string_literal_double_quotes_multiple, STATE 799),
     (sym__string_literal_single_quotes_multiple, STATE 799),
     (sym__raw_string_literal_double_quotes, STATE 799),
     (sym__raw_string_literal_single_quotes, STATE 799),
     (sym__raw_string_literal_double_quotes_multiple, STATE 799),
     (sym__raw_string_literal_single_quotes_multiple, STATE 799), (sym_list_literal, STATE 1279),
     (sym_set_or_map_literal, STATE 1279), (sym_null_literal, STATE 1279),
     (sym_record_literal, STATE 1279), (sym__record_literal_no_const, STATE 1268),
     (sym_assignable_expression, STATE 3162), (sym_function_expression, STATE 1278),
     (sym__unary_expression, STATE 1488), (sym_unary_expression, STATE 1480),
     (sym__postfix_expression, STATE 1480), (sym_postfix_expression, STATE 1481),
     (sym_prefix_operator, STATE 428), (sym_negation_operator, STATE 1450),
     (sym__exclamation_operator, STATE 1451), (sym_tilde_operator, STATE 1387),
     (sym_await_expression, STATE 1483), (sym_new_expression, STATE 1278),
     (sym_const_object_expression, STATE 1278), (sym__primary, STATE 719),
     (sym_parenthesized_expression, STATE 1278), (sym_constructor_invocation, STATE 728),
     (sym_constructor_tearoff, STATE 1278), (sym_type_arguments, STATE 3100),
     (sym_switch_expression, STATE 1278), (sym_type_parameters, STATE 2932),
     (sym__type_name, STATE 2949), (sym__formal_parameter_part, STATE 2342),
     (sym_formal_parameter_list, STATE 2020), (sym__strict_formal_parameter_list, STATE 2016),
     (sym__new_builtin, STATE 2091), (sym_this, STATE 1278), (sym_super, STATE 2609),
     (sym_comment, STATE 426), (sym_documentation_comment, STATE 426),
     (aux_sym_string_literal_repeat1, STATE 609), (sym_identifier, ACTIONS 842),
     (anon_sym_POUND, ACTIONS 776), (sym_decimal_integer_literal, ACTIONS 778),
     (sym_hex_integer_literal, ACTIONS 780), (sym_decimal_floating_point_literal, ACTIONS 778),
     (anon_sym_true, ACTIONS 782), (anon_sym_false, ACTIONS 784), (anon_sym_DQUOTE, ACTIONS 786),
     (anon_sym_SQUOTE, ACTIONS 788), (anon_sym_DQUOTE_DQUOTE_DQUOTE, ACTIONS 790),
     (anon_sym_SQUOTE_SQUOTE_SQUOTE, ACTIONS 792), (anon_sym_r_DQUOTE, ACTIONS 794),
     (anon_sym_r_SQUOTE, ACTIONS 796), (anon_sym_r_DQUOTE_DQUOTE_DQUOTE, ACTIONS 798),
     (anon_sym_r_SQUOTE_SQUOTE_SQUOTE, ACTIONS 800), (anon_sym_LBRACE, ACTIONS 802),
     (anon_sym_LBRACK, ACTIONS 804), (anon_sym_null, ACTIONS 806),
     (anon_sym_LPAREN, ACTIONS 808), (anon_sym_LT, ACTIONS 111),
     (sym_increment_operator, ACTIONS 812), (sym_minus_operator, ACTIONS 814),
     (anon_sym_BANG, ACTIONS 119), (anon_sym_TILDE, ACTIONS 121), (anon_sym_await, ACTIONS 816),
     (anon_sym_switch, ACTIONS 818), (anon_sym_new, ACTIONS 155),
     (sym_const_builtin, ACTIONS 820), (anon_sym_this, ACTIONS 822),
     (anon_sym_super, ACTIONS 161), (anon_sym_SLASH_SLASH, ACTIONS 3),
     (anon_sym_SLASH_STAR, ACTIONS 5), (anon_sym_SLASH_SLASH_SLASH, ACTIONS 7),
     (sym__block_comment, ACTIONS 9), (sym__documentation_block_comment, ACTIONS 11)]"

lemma row_ok_426: "table_row_ok 426 ts_parse_table_426"
  by (simp add: row_simps ts_parse_table_426_def)

definition ts_parse_table_427 :: table_row where
  "ts_parse_table_427 = [
     (sym__bool_literal, STATE 989), (sym__numeric_literal, STATE 989),
     (sym__literal, STATE 962), (sym_symbol_literal, STATE 989), (sym_true, STATE 900),
     (sym_false, STATE 900), (sym_string_literal, STATE 989),
     (sym__string_literal_double_quotes, STATE 627),
     (sym__string_literal_single_quotes, STATE 627),
     (sym__string_literal_double_quotes_multiple, STATE 627),
     (sym__string_literal_single_quotes_multiple, STATE 627),
     (sym__raw_string_literal_double_quotes, STATE 627),
     (sym__raw_string_literal_single_quotes, STATE 627),
     (sym__raw_string_literal_double_quotes_multiple, STATE 627),
     (sym__raw_string_literal_single_quotes_multiple, STATE 627), (sym_list_literal, STATE 989),
     (sym_set_or_map_literal, STATE 989), (sym_null_literal, STATE 989),
     (sym_record_literal, STATE 989), (sym__record_literal_no_const, STATE 924),
     (sym_assignable_expression, STATE 3070), (sym_function_expression, STATE 962),
     (sym__unary_expression, STATE 926), (sym_unary_expression, STATE 994),
     (sym__postfix_expression, STATE 994), (sym_postfix_expression, STATE 993),
     (sym_prefix_operator, STATE 421), (sym_negation_operator, STATE 1450),
     (sym__exclamation_operator, STATE 1451), (sym_tilde_operator, STATE 1357),
     (sym_await_expression, STATE 991), (sym_new_expression, STATE 962),
     (sym_const_object_expression, STATE 962), (sym__primary, STATE 659),
     (sym_parenthesized_expression, STATE 962), (sym_constructor_invocation, STATE 654),
     (sym_constructor_tearoff, STATE 962), (sym_type_arguments, STATE 3146),
     (sym_switch_expression, STATE 962), (sym_type_parameters, STATE 2932),
     (sym__type_name, STATE 2859), (sym__formal_parameter_part, STATE 2339),
     (sym_formal_parameter_list, STATE 2020), (sym__strict_formal_parameter_list, STATE 2016),
     (sym__new_builtin, STATE 2079), (sym_this, STATE 962), (sym_super, STATE 2594),
     (sym_comment, STATE 427), (sym_documentation_comment, STATE 427),
     (aux_sym_string_literal_repeat1, STATE 474), (sym_identifier, ACTIONS 844),
     (anon_sym_POUND, ACTIONS 73), (sym_decimal_integer_literal, ACTIONS 75),
     (sym_hex_integer_literal, ACTIONS 77), (sym_decimal_floating_point_literal, ACTIONS 75),
     (anon_sym_true, ACTIONS 79), (anon_sym_false, ACTIONS 81), (anon_sym_DQUOTE, ACTIONS 83),
     (anon_sym_SQUOTE, ACTIONS 85), (anon_sym_DQUOTE_DQUOTE_DQUOTE, ACTIONS 87),
     (anon_sym_SQUOTE_SQUOTE_SQUOTE, ACTIONS 89), (anon_sym_r_DQUOTE, ACTIONS 91),
     (anon_sym_r_SQUOTE, ACTIONS 93), (anon_sym_r_DQUOTE_DQUOTE_DQUOTE, ACTIONS 95),
     (anon_sym_r_SQUOTE_SQUOTE_SQUOTE, ACTIONS 97), (anon_sym_LBRACE, ACTIONS 766),
     (anon_sym_LBRACK, ACTIONS 768), (anon_sym_null, ACTIONS 105),
     (anon_sym_LPAREN, ACTIONS 770), (anon_sym_LT, ACTIONS 111),
     (sym_increment_operator, ACTIONS 688), (sym_minus_operator, ACTIONS 690),
     (anon_sym_BANG, ACTIONS 119), (anon_sym_TILDE, ACTIONS 121), (anon_sym_await, ACTIONS 692),
     (anon_sym_switch, ACTIONS 412), (anon_sym_new, ACTIONS 155),
     (sym_const_builtin, ACTIONS 478), (anon_sym_this, ACTIONS 159),
     (anon_sym_super, ACTIONS 161), (anon_sym_SLASH_SLASH, ACTIONS 3),
     (anon_sym_SLASH_STAR, ACTIONS 5), (anon_sym_SLASH_SLASH_SLASH, ACTIONS 7),
     (sym__block_comment, ACTIONS 9), (sym__documentation_block_comment, ACTIONS 11)]"

lemma row_ok_427: "table_row_ok 427 ts_parse_table_427"
  by (simp add: row_simps ts_parse_table_427_def)

definition ts_parse_table_428 :: table_row where
  "ts_parse_table_428 = [
     (sym__bool_literal, STATE 1279), (sym__numeric_literal, STATE 1279),
     (sym__literal, STATE 1278), (sym_symbol_literal, STATE 1279), (sym_true, STATE 1275),
     (sym_false, STATE 1275), (sym_string_literal, STATE 1279),
     (sym__string_literal_double_quotes, STATE 799),
     (sym__string_literal_single_quotes, STATE 799),
     (sym__string_literal_double_quotes_multiple, STATE 799),
     (sym__string_literal_single_quotes_multiple, STATE 799),
     (sym__raw_string_literal_double_quotes, STATE 799),
     (sym__raw_string_literal_single_quotes, STATE 799),
     (sym__raw_string_literal_double_quotes_multiple, STATE 799),
     (sym__raw_string_literal_single_quotes_multiple, STATE 799), (sym_list_literal, STATE 1279),
     (sym_set_or_map_literal, STATE 1279), (sym_null_literal, STATE 1279),
     (sym_record_literal, STATE 1279), (sym__record_literal_no_const, STATE 1268),
     (sym_assignable_expression, STATE 3162), (sym_function_expression, STATE 1278),
     (sym__unary_expression, STATE 1487), (sym_unary_expression, STATE 1480),
     (sym__postfix_expression, STATE 1480), (sym_postfix_expression, STATE 1481),
     (sym_prefix_operator, STATE 428), (sym_negation_operator, STATE 1450),
     (sym__exclamation_operator, STATE 1451), (sym_tilde_operator, STATE 1387),
     (sym_await_expression, STATE 1483), (sym_new_expression, STATE 1278),
     (sym_const_object_expression, STATE 1278), (sym__primary, STATE 719),
     (sym_parenthesized_expression, STATE 1278), (sym_constructor_invocation, STATE 728),
     (sym_constructor_tearoff, STATE 1278), (sym_type_arguments, STATE 3100),
     (sym_switch_expression, STATE 1278), (sym_type_parameters, STATE 2932),
     (sym__type_name, STATE 2949), (sym__formal_parameter_part, STATE 2342),
     (sym_formal_parameter_list, STATE 2020), (sym__strict_formal_parameter_list, STATE 2016),
     (sym__new_builtin, STATE 2091), (sym_this, STATE 1278), (sym_super, STATE 2609),
     (sym_comment, STATE 428), (sym_documentation_comment, STATE 428),
     (aux_sym_string_literal_repeat1, STATE 609), (sym_identifier, ACTIONS 842),
     (anon_sym_POUND, ACTIONS 776), (sym_decimal_integer_literal, ACTIONS 778),
     (sym_hex_integer_literal, ACTIONS 780), (sym_decimal_floating_point_literal, ACTIONS 778),
     (anon_sym_true, ACTIONS 782), (anon_sym_false, ACTIONS 784), (anon_sym_DQUOTE, ACTIONS 786),
     (anon_sym_SQUOTE, ACTIONS 788), (anon_sym_DQUOTE_DQUOTE_DQUOTE, ACTIONS 790),
     (anon_sym_SQUOTE_SQUOTE_SQUOTE, ACTIONS 792), (anon_sym_r_DQUOTE, ACTIONS 794),
     (anon_sym_r_SQUOTE, ACTIONS 796), (anon_sym_r_DQUOTE_DQUOTE_DQUOTE, ACTIONS 798),
     (anon_sym_r_SQUOTE_SQUOTE_SQUOTE, ACTIONS 800), (anon_sym_LBRACE, ACTIONS 802),
     (anon_sym_LBRACK, ACTIONS 804), (anon_sym_null, ACTIONS 806),
     (anon_sym_LPAREN, ACTIONS 808), (anon_sym_LT, ACTIONS 111),
     (sym_increment_operator, ACTIONS 812), (sym_minus_operator, ACTIONS 814),
     (anon_sym_BANG, ACTIONS 119), (anon_sym_TILDE, ACTIONS 121), (anon_sym_await, ACTIONS 816),
     (anon_sym_switch, ACTIONS 818), (anon_sym_new, ACTIONS 155),
     (sym_const_builtin, ACTIONS 820), (anon_sym_this, ACTIONS 822),
     (anon_sym_super, ACTIONS 161), (anon_sym_SLASH_SLASH, ACTIONS 3),
     (anon_sym_SLASH_STAR, ACTIONS 5), (anon_sym_SLASH_SLASH_SLASH, ACTIONS 7),
     (sym__block_comment, ACTIONS 9), (sym__documentation_block_comment, ACTIONS 11)]"

lemma row_ok_428: "table_row_ok 428 ts_parse_table_428"
  by (simp add: row_simps ts_parse_table_428_def)

definition ts_parse_table_429 :: table_row where
  "ts_parse_table_429 = [
     (sym__bool_literal, STATE 989), (sym__numeric_literal, STATE 989),
     (sym__literal, STATE 962), (sym_symbol_literal, STATE 989), (sym_true, STATE 900),
     (sym_false, STATE 900), (sym_string_literal, STATE 989),
     (sym__string_literal_double_quotes, STATE 627),
     (sym__string_literal_single_quotes, STATE 627),
     (sym__string_literal_double_quotes_multiple, STATE 627),
     (sym__string_literal_single_quotes_multiple, STATE 627),
     (sym__raw_string_literal_double_quotes, STATE 627),
     (sym__raw_string_literal_single_quotes, STATE 627),
     (sym__raw_string_literal_double_quotes_multiple, STATE 627),
     (sym__raw_string_literal_single_quotes_multiple, STATE 627), (sym_list_literal, STATE 989),
     (sym_set_or_map_literal, STATE 989), (sym_null_literal, STATE 989),
     (sym_record_literal, STATE 989), (sym__record_literal_no_const, STATE 924),
     (sym_assignable_expression, STATE 3070), (sym_function_expression, STATE 962),
     (sym__unary_expression, STATE 968), (sym_unary_expression, STATE 994),
     (sym__postfix_expression, STATE 994), (sym_postfix_expression, STATE 993),
     (sym_prefix_operator, STATE 421), (sym_negation_operator, STATE 1450),
     (sym__exclamation_operator, STATE 1451), (sym_tilde_operator, STATE 1357),
     (sym_await_expression, STATE 991), (sym_new_expression, STATE 962),
     (sym_const_object_expression, STATE 962), (sym__primary, STATE 659),
     (sym_parenthesized_expression, STATE 962), (sym_constructor_invocation, STATE 654),
     (sym_constructor_tearoff, STATE 962), (sym_type_arguments, STATE 3146),
     (sym_switch_expression, STATE 962), (sym_type_parameters, STATE 2932),
     (sym__type_name, STATE 2859), (sym__formal_parameter_part, STATE 2339),
     (sym_formal_parameter_list, STATE 2020), (sym__strict_formal_parameter_list, STATE 2016),
     (sym__new_builtin, STATE 2079), (sym_this, STATE 962), (sym_super, STATE 2594),
     (sym_comment, STATE 429), (sym_documentation_comment, STATE 429),
     (aux_sym_string_literal_repeat1, STATE 474), (sym_identifier, ACTIONS 844),
     (anon_sym_POUND, ACTIONS 73), (sym_decimal_integer_literal, ACTIONS 75),
     (sym_hex_integer_literal, ACTIONS 77), (sym_decimal_floating_point_literal, ACTIONS 75),
     (anon_sym_true, ACTIONS 79), (anon_sym_false, ACTIONS 81), (anon_sym_DQUOTE, ACTIONS 83),
     (anon_sym_SQUOTE, ACTIONS 85), (anon_sym_DQUOTE_DQUOTE_DQUOTE, ACTIONS 87),
     (anon_sym_SQUOTE_SQUOTE_SQUOTE, ACTIONS 89), (anon_sym_r_DQUOTE, ACTIONS 91),
     (anon_sym_r_SQUOTE, ACTIONS 93), (anon_sym_r_DQUOTE_DQUOTE_DQUOTE, ACTIONS 95),
     (anon_sym_r_SQUOTE_SQUOTE_SQUOTE, ACTIONS 97), (anon_sym_LBRACE, ACTIONS 766),
     (anon_sym_LBRACK, ACTIONS 768), (anon_sym_null, ACTIONS 105),
     (anon_sym_LPAREN, ACTIONS 770), (anon_sym_LT, ACTIONS 111),
     (sym_increment_operator, ACTIONS 688), (sym_minus_operator, ACTIONS 690),
     (anon_sym_BANG, ACTIONS 119), (anon_sym_TILDE, ACTIONS 121), (anon_sym_await, ACTIONS 692),
     (anon_sym_switch, ACTIONS 412), (anon_sym_new, ACTIONS 155),
     (sym_const_builtin, ACTIONS 478), (anon_sym_this, ACTIONS 159),
     (anon_sym_super, ACTIONS 161), (anon_sym_SLASH_SLASH, ACTIONS 3),
     (anon_sym_SLASH_STAR, ACTIONS 5), (anon_sym_SLASH_SLASH_SLASH, ACTIONS 7),
     (sym__block_comment, ACTIONS 9), (sym__documentation_block_comment, ACTIONS 11)]"

lemma row_ok_429: "table_row_ok 429 ts_parse_table_429"
  by (simp add: row_simps ts_parse_table_429_def)

definition ts_parse_table_430 :: table_row where
  "ts_parse_table_430 = [
     (sym__bool_literal, STATE 1115), (sym__numeric_literal, STATE 1115),
     (sym__literal, STATE 1135), (sym_symbol_literal, STATE 1115), (sym_true, STATE 1165),
     (sym_false, STATE 1165), (sym_string_literal, STATE 1115),
     (sym__string_literal_double_quotes, STATE 729),
     (sym__string_literal_single_quotes, STATE 729),
     (sym__string_literal_double_quotes_multiple, STATE 729),
     (sym__string_literal_single_quotes_multiple, STATE 729),
     (sym__raw_string_literal_double_quotes, STATE 729),
     (sym__raw_string_literal_single_quotes, STATE 729),
     (sym__raw_string_literal_double_quotes_multiple, STATE 729),
     (sym__raw_string_literal_single_quotes_multiple, STATE 729), (sym_list_literal, STATE 1115),
     (sym_set_or_map_literal, STATE 1115), (sym_null_literal, STATE 1115),
     (sym_record_literal, STATE 1115), (sym__record_literal_no_const, STATE 1187),
     (sym_assignable_expression, STATE 3194), (sym_function_expression, STATE 1135),
     (sym__unary_expression, STATE 1373), (sym_unary_expression, STATE 1391),
     (sym__postfix_expression, STATE 1391), (sym_postfix_expression, STATE 1390),
     (sym_prefix_operator, STATE 432), (sym_negation_operator, STATE 1450),
     (sym__exclamation_operator, STATE 1451), (sym_tilde_operator, STATE 1394),
     (sym_await_expression, STATE 1389), (sym_new_expression, STATE 1135),
     (sym_const_object_expression, STATE 1135), (sym__primary, STATE 684),
     (sym_parenthesized_expression, STATE 1135), (sym_constructor_invocation, STATE 691),
     (sym_constructor_tearoff, STATE 1135), (sym_type_arguments, STATE 3081),
     (sym_switch_expression, STATE 1135), (sym_type_parameters, STATE 2932),
     (sym__type_name, STATE 2826), (sym__formal_parameter_part, STATE 2358),
     (sym_formal_parameter_list, STATE 2020), (sym__strict_formal_parameter_list, STATE 2016),
     (sym__new_builtin, STATE 2074), (sym_this, STATE 1135), (sym_super, STATE 2635),
     (sym_comment, STATE 430), (sym_documentation_comment, STATE 430),
     (aux_sym_string_literal_repeat1, STATE 595), (sym_identifier, ACTIONS 846),
     (anon_sym_POUND, ACTIONS 698), (sym_decimal_integer_literal, ACTIONS 700),
     (sym_hex_integer_literal, ACTIONS 702), (sym_decimal_floating_point_literal, ACTIONS 700),
     (anon_sym_true, ACTIONS 704), (anon_sym_false, ACTIONS 706), (anon_sym_DQUOTE, ACTIONS 708),
     (anon_sym_SQUOTE, ACTIONS 710), (anon_sym_DQUOTE_DQUOTE_DQUOTE, ACTIONS 712),
     (anon_sym_SQUOTE_SQUOTE_SQUOTE, ACTIONS 714), (anon_sym_r_DQUOTE, ACTIONS 716),
     (anon_sym_r_SQUOTE, ACTIONS 718), (anon_sym_r_DQUOTE_DQUOTE_DQUOTE, ACTIONS 720),
     (anon_sym_r_SQUOTE_SQUOTE_SQUOTE, ACTIONS 722), (anon_sym_LBRACE, ACTIONS 756),
     (anon_sym_LBRACK, ACTIONS 758), (anon_sym_null, ACTIONS 728),
     (anon_sym_LPAREN, ACTIONS 760), (anon_sym_LT, ACTIONS 111),
     (sym_increment_operator, ACTIONS 828), (sym_minus_operator, ACTIONS 830),
     (anon_sym_BANG, ACTIONS 119), (anon_sym_TILDE, ACTIONS 121), (anon_sym_await, ACTIONS 832),
     (anon_sym_switch, ACTIONS 740), (anon_sym_new, ACTIONS 155),
     (sym_const_builtin, ACTIONS 744), (anon_sym_this, ACTIONS 746),
     (anon_sym_super, ACTIONS 161), (anon_sym_SLASH_SLASH, ACTIONS 3),
     (anon_sym_SLASH_STAR, ACTIONS 5), (anon_sym_SLASH_SLASH_SLASH, ACTIONS 7),
     (sym__block_comment, ACTIONS 9), (sym__documentation_block_comment, ACTIONS 11)]"

lemma row_ok_430: "table_row_ok 430 ts_parse_table_430"
  by (simp add: row_simps ts_parse_table_430_def)

definition ts_parse_table_431 :: table_row where
  "ts_parse_table_431 = [
     (sym__bool_literal, STATE 989), (sym__numeric_literal, STATE 989),
     (sym__literal, STATE 962), (sym_symbol_literal, STATE 989), (sym_true, STATE 900),
     (sym_false, STATE 900), (sym_string_literal, STATE 989),
     (sym__string_literal_double_quotes, STATE 627),
     (sym__string_literal_single_quotes, STATE 627),
     (sym__string_literal_double_quotes_multiple, STATE 627),
     (sym__string_literal_single_quotes_multiple, STATE 627),
     (sym__raw_string_literal_double_quotes, STATE 627),
     (sym__raw_string_literal_single_quotes, STATE 627),
     (sym__raw_string_literal_double_quotes_multiple, STATE 627),
     (sym__raw_string_literal_single_quotes_multiple, STATE 627), (sym_list_literal, STATE 989),
     (sym_set_or_map_literal, STATE 989), (sym_null_literal, STATE 989),
     (sym_record_literal, STATE 989), (sym__record_literal_no_const, STATE 924),
     (sym_assignable_expression, STATE 3122), (sym_function_expression, STATE 962),
     (sym__unary_expression, STATE 1315), (sym_unary_expression, STATE 1303),
     (sym__postfix_expression, STATE 1303), (sym_postfix_expression, STATE 1301),
     (sym_prefix_operator, STATE 431), (sym_negation_operator, STATE 1450),
     (sym__exclamation_operator, STATE 1451), (sym_tilde_operator, STATE 1385),
     (sym_await_expression, STATE 1302), (sym_new_expression, STATE 962),
     (sym_const_object_expression, STATE 962), (sym__primary, STATE 674),
     (sym_parenthesized_expression, STATE 962), (sym_constructor_invocation, STATE 654),
     (sym_constructor_tearoff, STATE 962), (sym_type_arguments, STATE 3146),
     (sym_switch_expression, STATE 962), (sym_type_parameters, STATE 2932),
     (sym__type_name, STATE 2859), (sym__formal_parameter_part, STATE 2339),
     (sym_formal_parameter_list, STATE 2020), (sym__strict_formal_parameter_list, STATE 2016),
     (sym__new_builtin, STATE 2079), (sym_this, STATE 962), (sym_super, STATE 2594),
     (sym_comment, STATE 431), (sym_documentation_comment, STATE 431),
     (aux_sym_string_literal_repeat1, STATE 474), (sym_identifier, ACTIONS 844),
     (anon_sym_POUND, ACTIONS 73), (sym_decimal_integer_literal, ACTIONS 75),
     (sym_hex_integer_literal, ACTIONS 77), (sym_decimal_floating_point_literal, ACTIONS 75),
     (anon_sym_true, ACTIONS 79), (anon_sym_false, ACTIONS 81), (anon_sym_DQUOTE, ACTIONS 83),
     (anon_sym_SQUOTE, ACTIONS 85), (anon_sym_DQUOTE_DQUOTE_DQUOTE, ACTIONS 87),
     (anon_sym_SQUOTE_SQUOTE_SQUOTE, ACTIONS 89), (anon_sym_r_DQUOTE, ACTIONS 91),
     (anon_sym_r_SQUOTE, ACTIONS 93), (anon_sym_r_DQUOTE_DQUOTE_DQUOTE, ACTIONS 95),
     (anon_sym_r_SQUOTE_SQUOTE_SQUOTE, ACTIONS 97), (anon_sym_LBRACE, ACTIONS 766),
     (anon_sym_LBRACK, ACTIONS 768), (anon_sym_null, ACTIONS 105),
     (anon_sym_LPAREN, ACTIONS 770), (anon_sym_LT, ACTIONS 111),
     (sym_increment_operator, ACTIONS 113), (sym_minus_operator, ACTIONS 117),
     (anon_sym_BANG, ACTIONS 119), (anon_sym_TILDE, ACTIONS 121), (anon_sym_await, ACTIONS 432),
     (anon_sym_switch, ACTIONS 412), (anon_sym_new, ACTIONS 155),
     (sym_const_builtin, ACTIONS 478), (anon_sym_this, ACTIONS 159),
     (anon_sym_super, ACTIONS 161), (anon_sym_SLASH_SLASH, ACTIONS 3),
     (anon_sym_SLASH_STAR, ACTIONS 5), (anon_sym_SLASH_SLASH_SLASH, ACTIONS 7),
     (sym__block_comment, ACTIONS 9), (sym__documentation_block_comment, ACTIONS 11)]"

lemma row_ok_431: "table_row_ok 431 ts_parse_table_431"
  by (simp add: row_simps ts_parse_table_431_def)

definition ts_parse_table_432 :: table_row where
  "ts_parse_table_432 = [
     (sym__bool_literal, STATE 1115), (sym__numeric_literal, STATE 1115),
     (sym__literal, STATE 1135), (sym_symbol_literal, STATE 1115), (sym_true, STATE 1165),
     (sym_false, STATE 1165), (sym_string_literal, STATE 1115),
     (sym__string_literal_double_quotes, STATE 729),
     (sym__string_literal_single_quotes, STATE 729),
     (sym__string_literal_double_quotes_multiple, STATE 729),
     (sym__string_literal_single_quotes_multiple, STATE 729),
     (sym__raw_string_literal_double_quotes, STATE 729),
     (sym__raw_string_literal_single_quotes, STATE 729),
     (sym__raw_string_literal_double_quotes_multiple, STATE 729),
     (sym__raw_string_literal_single_quotes_multiple, STATE 729), (sym_list_literal, STATE 1115),
     (sym_set_or_map_literal, STATE 1115), (sym_null_literal, STATE 1115),
     (sym_record_literal, STATE 1115), (sym__record_literal_no_const, STATE 1187),
     (sym_assignable_expression, STATE 3194), (sym_function_expression, STATE 1135),
     (sym__unary_expression, STATE 1382), (sym_unary_expression, STATE 1391),
     (sym__postfix_expression, STATE 1391), (sym_postfix_expression, STATE 1390),
     (sym_prefix_operator, STATE 432), (sym_negation_operator, STATE 1450),
     (sym__exclamation_operator, STATE 1451), (sym_tilde_operator, STATE 1394),
     (sym_await_expression, STATE 1389), (sym_new_expression, STATE 1135),
     (sym_const_object_expression, STATE 1135), (sym__primary, STATE 684),
     (sym_parenthesized_expression, STATE 1135), (sym_constructor_invocation, STATE 691),
     (sym_constructor_tearoff, STATE 1135), (sym_type_arguments, STATE 3081),
     (sym_switch_expression, STATE 1135), (sym_type_parameters, STATE 2932),
     (sym__type_name, STATE 2826), (sym__formal_parameter_part, STATE 2358),
     (sym_formal_parameter_list, STATE 2020), (sym__strict_formal_parameter_list, STATE 2016),
     (sym__new_builtin, STATE 2074), (sym_this, STATE 1135), (sym_super, STATE 2635),
     (sym_comment, STATE 432), (sym_documentation_comment, STATE 432),
     (aux_sym_string_literal_repeat1, STATE 595), (sym_identifier, ACTIONS 846),
     (anon_sym_POUND, ACTIONS 698), (sym_decimal_integer_literal, ACTIONS 700),
     (sym_hex_integer_literal, ACTIONS 702), (sym_decimal_floating_point_literal, ACTIONS 700),
     (anon_sym_true, ACTIONS 704), (anon_sym_false, ACTIONS 706), (anon_sym_DQUOTE, ACTIONS 708),
     (anon_sym_SQUOTE, ACTIONS 710), (anon_sym_DQUOTE_DQUOTE_DQUOTE, ACTIONS 712),
     (anon_sym_SQUOTE_SQUOTE_SQUOTE, ACTIONS 714), (anon_sym_r_DQUOTE, ACTIONS 716),
     (anon_sym_r_SQUOTE, ACTIONS 718), (anon_sym_r_DQUOTE_DQUOTE_DQUOTE, ACTIONS 720),
     (anon_sym_r_SQUOTE_SQUOTE_SQUOTE, ACTIONS 722), (anon_sym_LBRACE, ACTIONS 756),
     (anon_sym_LBRACK, ACTIONS 758), (anon_sym_null, ACTIONS 728),
     (anon_sym_LPAREN, ACTIONS 760), (anon_sym_LT, ACTIONS 111),
     (sym_increment_operator, ACTIONS 828), (sym_minus_operator, ACTIONS 830),
     (anon_sym_BANG, ACTIONS 119), (anon_sym_TILDE, ACTIONS 121), (anon_sym_await, ACTIONS 832),
     (anon_sym_switch, ACTIONS 740), (anon_sym_new, ACTIONS 155),
     (sym_const_builtin, ACTIONS 744), (anon_sym_this, ACTIONS 746),
     (anon_sym_super, ACTIONS 161), (anon_sym_SLASH_SLASH, ACTIONS 3),
     (anon_sym_SLASH_STAR, ACTIONS 5), (anon_sym_SLASH_SLASH_SLASH, ACTIONS 7),
     (sym__block_comment, ACTIONS 9), (sym__documentation_block_comment, ACTIONS 11)]"

lemma row_ok_432: "table_row_ok 432 ts_parse_table_432"
  by (simp add: row_simps ts_parse_table_432_def)

definition ts_parse_table_433 :: table_row where
  "ts_parse_table_433 = [
     (sym__bool_literal, STATE 1115), (sym__numeric_literal, STATE 1115),
     (sym__literal, STATE 1135), (sym_symbol_literal, STATE 1115), (sym_true, STATE 1165),
     (sym_false, STATE 1165), (sym_string_literal, STATE 1115),
     (sym__string_literal_double_quotes, STATE 729),
     (sym__string_literal_single_quotes, STATE 729),
     (sym__string_literal_double_quotes_multiple, STATE 729),
     (sym__string_literal_single_quotes_multiple, STATE 729),
     (sym__raw_string_literal_double_quotes, STATE 729),
     (sym__raw_string_literal_single_quotes, STATE 729),
     (sym__raw_string_literal_double_quotes_multiple, STATE 729),
     (sym__raw_string_literal_single_quotes_multiple, STATE 729), (sym_list_literal, STATE 1115),
     (sym_set_or_map_literal, STATE 1115), (sym_null_literal, STATE 1115),
     (sym_record_literal, STATE 1115), (sym__record_literal_no_const, STATE 1187),
     (sym_assignable_expression, STATE 3194), (sym_function_expression, STATE 1135),
     (sym__unary_expression, STATE 1381), (sym_unary_expression, STATE 1391),
     (sym__postfix_expression, STATE 1391), (sym_postfix_expression, STATE 1390),
     (sym_prefix_operator, STATE 432), (sym_negation_operator, STATE 1450),
     (sym__exclamation_operator, STATE 1451), (sym_tilde_operator, STATE 1394),
     (sym_await_expression, STATE 1389), (sym_new_expression, STATE 1135),
     (sym_const_object_expression, STATE 1135), (sym__primary, STATE 684),
     (sym_parenthesized_expression, STATE 1135), (sym_constructor_invocation, STATE 691),
     (sym_constructor_tearoff, STATE 1135), (sym_type_arguments, STATE 3081),
     (sym_switch_expression, STATE 1135), (sym_type_parameters, STATE 2932),
     (sym__type_name, STATE 2826), (sym__formal_parameter_part, STATE 2358),
     (sym_formal_parameter_list, STATE 2020), (sym__strict_formal_parameter_list, STATE 2016),
     (sym__new_builtin, STATE 2074), (sym_this, STATE 1135), (sym_super, STATE 2635),
     (sym_comment, STATE 433), (sym_documentation_comment, STATE 433),
     (aux_sym_string_literal_repeat1, STATE 595), (sym_identifier, ACTIONS 846),
     (anon_sym_POUND, ACTIONS 698), (sym_decimal_integer_literal, ACTIONS 700),
     (sym_hex_integer_literal, ACTIONS 702), (sym_decimal_floating_point_literal, ACTIONS 700),
     (anon_sym_true, ACTIONS 704), (anon_sym_false, ACTIONS 706), (anon_sym_DQUOTE, ACTIONS 708),
     (anon_sym_SQUOTE, ACTIONS 710), (anon_sym_DQUOTE_DQUOTE_DQUOTE, ACTIONS 712),
     (anon_sym_SQUOTE_SQUOTE_SQUOTE, ACTIONS 714), (anon_sym_r_DQUOTE, ACTIONS 716),
     (anon_sym_r_SQUOTE, ACTIONS 718), (anon_sym_r_DQUOTE_DQUOTE_DQUOTE, ACTIONS 720),
     (anon_sym_r_SQUOTE_SQUOTE_SQUOTE, ACTIONS 722), (anon_sym_LBRACE, ACTIONS 756),
     (anon_sym_LBRACK, ACTIONS 758), (anon_sym_null, ACTIONS 728),
     (anon_sym_LPAREN, ACTIONS 760), (anon_sym_LT, ACTIONS 111),
     (sym_increment_operator, ACTIONS 828), (sym_minus_operator, ACTIONS 830),
     (anon_sym_BANG, ACTIONS 119), (anon_sym_TILDE, ACTIONS 121), (anon_sym_await, ACTIONS 832),
     (anon_sym_switch, ACTIONS 740), (anon_sym_new, ACTIONS 155),
     (sym_const_builtin, ACTIONS 744), (anon_sym_this, ACTIONS 746),
     (anon_sym_super, ACTIONS 161), (anon_sym_SLASH_SLASH, ACTIONS 3),
     (anon_sym_SLASH_STAR, ACTIONS 5), (anon_sym_SLASH_SLASH_SLASH, ACTIONS 7),
     (sym__block_comment, ACTIONS 9), (sym__documentation_block_comment, ACTIONS 11)]"

lemma row_ok_433: "table_row_ok 433 ts_parse_table_433"
  by (simp add: row_simps ts_parse_table_433_def)

definition ts_parse_table_434 :: table_row where
  "ts_parse_table_434 = [
     (sym__bool_literal, STATE 1115), (sym__numeric_literal, STATE 1115),
     (sym__literal, STATE 1135), (sym_symbol_literal, STATE 1115), (sym_true, STATE 1165),
     (sym_false, STATE 1165), (sym_string_literal, STATE 1115),
     (sym__string_literal_double_quotes, STATE 729),
     (sym__string_literal_single_quotes, STATE 729),
     (sym__string_literal_double_quotes_multiple, STATE 729),
     (sym__string_literal_single_quotes_multiple, STATE 729),
     (sym__raw_string_literal_double_quotes, STATE 729),
     (sym__raw_string_literal_single_quotes, STATE 729),
     (sym__raw_string_literal_double_quotes_multiple, STATE 729),
     (sym__raw_string_literal_single_quotes_multiple, STATE 729), (sym_list_literal, STATE 1115),
     (sym_set_or_map_literal, STATE 1115), (sym_null_literal, STATE 1115),
     (sym_record_literal, STATE 1115), (sym__record_literal_no_const, STATE 1187),
     (sym_assignable_expression, STATE 3249), (sym_function_expression, STATE 1135),
     (sym__unary_expression, STATE 1153), (sym_unary_expression, STATE 1114),
     (sym__postfix_expression, STATE 1114), (sym_postfix_expression, STATE 1098),
     (sym_prefix_operator, STATE 417), (sym_negation_operator, STATE 1450),
     (sym__exclamation_operator, STATE 1451), (sym_tilde_operator, STATE 1359),
     (sym_await_expression, STATE 1093), (sym_new_expression, STATE 1135),
     (sym_const_object_expression, STATE 1135), (sym__primary, STATE 701),
     (sym_parenthesized_expression, STATE 1135), (sym_constructor_invocation, STATE 691),
     (sym_constructor_tearoff, STATE 1135), (sym_type_arguments, STATE 3081),
     (sym_switch_expression, STATE 1135), (sym_type_parameters, STATE 2932),
     (sym__type_name, STATE 2826), (sym__formal_parameter_part, STATE 2358),
     (sym_formal_parameter_list, STATE 2020), (sym__strict_formal_parameter_list, STATE 2016),
     (sym__new_builtin, STATE 2074), (sym_this, STATE 1135), (sym_super, STATE 2635),
     (sym_comment, STATE 434), (sym_documentation_comment, STATE 434),
     (aux_sym_string_literal_repeat1, STATE 595), (sym_identifier, ACTIONS 846),
     (anon_sym_POUND, ACTIONS 698), (sym_decimal_integer_literal, ACTIONS 700),
     (sym_hex_integer_literal, ACTIONS 702), (sym_decimal_floating_point_literal, ACTIONS 700),
     (anon_sym_true, ACTIONS 704), (anon_sym_false, ACTIONS 706), (anon_sym_DQUOTE, ACTIONS 708),
     (anon_sym_SQUOTE, ACTIONS 710), (anon_sym_DQUOTE_DQUOTE_DQUOTE, ACTIONS 712),
     (anon_sym_SQUOTE_SQUOTE_SQUOTE, ACTIONS 714), (anon_sym_r_DQUOTE, ACTIONS 716),
     (anon_sym_r_SQUOTE, ACTIONS 718), (anon_sym_r_DQUOTE_DQUOTE_DQUOTE, ACTIONS 720),
     (anon_sym_r_SQUOTE_SQUOTE_SQUOTE, ACTIONS 722), (anon_sym_LBRACE, ACTIONS 756),
     (anon_sym_LBRACK, ACTIONS 758), (anon_sym_null, ACTIONS 728),
     (anon_sym_LPAREN, ACTIONS 760), (anon_sym_LT, ACTIONS 111),
     (sym_increment_operator, ACTIONS 734), (sym_minus_operator, ACTIONS 736),
     (anon_sym_BANG, ACTIONS 119), (anon_sym_TILDE, ACTIONS 121), (anon_sym_await, ACTIONS 738),
     (anon_sym_switch, ACTIONS 740), (anon_sym_new, ACTIONS 155),
     (sym_const_builtin, ACTIONS 744), (anon_sym_this, ACTIONS 746),
     (anon_sym_super, ACTIONS 161), (anon_sym_SLASH_SLASH, ACTIONS 3),
     (anon_sym_SLASH_STAR, ACTIONS 5), (anon_sym_SLASH_SLASH_SLASH, ACTIONS 7),
     (sym__block_comment, ACTIONS 9), (sym__documentation_block_comment, ACTIONS 11)]"

lemma row_ok_434: "table_row_ok 434 ts_parse_table_434"
  by (simp add: row_simps ts_parse_table_434_def)

definition ts_parse_table_435 :: table_row where
  "ts_parse_table_435 = [
     (sym__top_level_definition, STATE 1774), (sym_annotation, STATE 1571),
     (sym_import_or_export, STATE 1572), (sym_library_import, STATE 1577),
     (sym_library_export, STATE 1577), (sym_import_specification, STATE 1581),
     (sym_part_directive, STATE 1671), (sym_part_of_directive, STATE 1725),
     (sym_enum_declaration, STATE 1769), (sym_type_alias, STATE 1769),
     (sym__class_modifiers, STATE 3195), (sym__mixin_class_modifiers, STATE 3373),
     (sym_class_definition, STATE 1769), (sym_extension_declaration, STATE 1769),
     (sym__metadata, STATE 550), (sym_mixin_declaration, STATE 1769),
     (sym_getter_signature, STATE 2207), (sym_setter_signature, STATE 2207),
     (sym__type, STATE 2433), (sym__type_not_function, STATE 1796),
     (sym__type_not_void_not_function, STATE 1896), (sym_function_type, STATE 1848),
     (aux_sym__function_type_tails, STATE 1605), (sym__function_type_tail, STATE 1704),
     (sym_record_type, STATE 1805), (sym__type_name, STATE 1530),
     (sym_inferred_type, STATE 2737), (sym_function_signature, STATE 2207),
     (sym_library_name, STATE 441), (sym__export, STATE 1869),
     (sym__function_builtin_identifier, STATE 1463), (sym__get, STATE 2411),
     (sym__import, STATE 1817), (sym_interface, STATE 3539), (sym_base, STATE 2767),
     (sym_abstract, STATE 2228), (sym_sealed, STATE 3539), (sym_mixin, STATE 3250),
     (sym__set, STATE 2377), (sym__typedef, STATE 2082), (sym_final_builtin, STATE 1989),
     (sym__late_builtin, STATE 1957), (sym__external_builtin, STATE 1818),
     (sym_comment, STATE 435), (sym_documentation_comment, STATE 435),
     (aux_sym_program_repeat1, STATE 440), (aux_sym_program_repeat2, STATE 452),
     (aux_sym_program_repeat3, STATE 462), (aux_sym_program_repeat4, STATE 476),
     (aux_sym__metadata_repeat1, STATE 1454), (ts_builtin_sym_end, ACTIONS 1033),
     (sym_identifier, ACTIONS 15), (anon_sym_LPAREN, ACTIONS 17), (anon_sym_AT, ACTIONS 19),
     (anon_sym_part, ACTIONS 21), (anon_sym_enum, ACTIONS 23), (anon_sym_final, ACTIONS 25),
     (anon_sym_inline, ACTIONS 27), (anon_sym_class, ACTIONS 29),
     (anon_sym_extension, ACTIONS 31), (sym_void_type, ACTIONS 33), (anon_sym_var, ACTIONS 35),
     (anon_sym_library, ACTIONS 39), (sym_part_of_builtin, ACTIONS 41),
     (anon_sym_export, ACTIONS 43), (anon_sym_Function, ACTIONS 45), (anon_sym_get, ACTIONS 47),
     (anon_sym_import, ACTIONS 49), (anon_sym_interface, ACTIONS 51),
     (anon_sym_base, ACTIONS 53), (anon_sym_abstract, ACTIONS 55), (anon_sym_sealed, ACTIONS 57),
     (anon_sym_mixin, ACTIONS 59), (anon_sym_set, ACTIONS 61), (anon_sym_typedef, ACTIONS 63),
     (sym_const_builtin, ACTIONS 65), (anon_sym_late, ACTIONS 67),
     (anon_sym_external, ACTIONS 69), (anon_sym_SLASH_SLASH, ACTIONS 3),
     (anon_sym_SLASH_STAR, ACTIONS 5), (anon_sym_SLASH_SLASH_SLASH, ACTIONS 7),
     (sym__block_comment, ACTIONS 9), (sym__documentation_block_comment, ACTIONS 11)]"

lemma row_ok_435: "table_row_ok 435 ts_parse_table_435"
  by (simp add: row_simps ts_parse_table_435_def)

definition ts_parse_table_436 :: table_row where
  "ts_parse_table_436 = [
     (sym__bool_literal, STATE 2124), (sym__numeric_literal, STATE 2124),
     (sym_symbol_literal, STATE 2124), (sym_true, STATE 2120), (sym_false, STATE 2120),
     (sym_string_literal, STATE 2124), (sym__string_literal_double_quotes, STATE 1854),
     (sym__string_literal_single_quotes, STATE 1854),
     (sym__string_literal_double_quotes_multiple, STATE 1854),
     (sym__string_literal_single_quotes_multiple, STATE 1854),
     (sym__raw_string_literal_double_quotes, STATE 1854),
     (sym__raw_string_literal_single_quotes, STATE 1854),
     (sym__raw_string_literal_double_quotes_multiple, STATE 1854),
     (sym__raw_string_literal_single_quotes_multiple, STATE 1854),
     (sym_null_literal, STATE 2124), (sym_relational_operator, STATE 345),
     (sym_const_object_expression, STATE 2124), (sym_type_arguments, STATE 3171),
     (sym__logical_and_pattern, STATE 2308), (sym__relational_pattern, STATE 2147),
     (sym__unary_pattern, STATE 2230), (sym__primary_pattern, STATE 2129),
     (sym_cast_pattern, STATE 2231), (sym_null_check_pattern, STATE 2231),
     (sym_null_assert_pattern, STATE 2231), (sym_constant_pattern, STATE 2102),
     (sym_variable_pattern, STATE 2102), (sym__parenthesized_pattern, STATE 2102),
     (sym_list_pattern, STATE 2102), (sym_map_pattern, STATE 2102),
     (sym_record_pattern, STATE 2102), (sym_object_pattern, STATE 2102), (sym__type, STATE 3547),
     (sym__type_not_function, STATE 1796), (sym__type_not_void_not_function, STATE 1896),
     (sym_function_type, STATE 1848), (aux_sym__function_type_tails, STATE 1605),
     (sym__function_type_tail, STATE 1704), (sym_record_type, STATE 1805),
     (sym__type_name, STATE 2156), (sym__final_var_or_type, STATE 3469),
     (sym_inferred_type, STATE 3547), (sym_qualified, STATE 2124),
     (sym__function_builtin_identifier, STATE 1463), (sym_final_builtin, STATE 2100),
     (sym_comment, STATE 436), (sym_documentation_comment, STATE 436),
     (aux_sym_string_literal_repeat1, STATE 1475), (sym_identifier, ACTIONS 967),
     (anon_sym_POUND, ACTIONS 850), (sym_decimal_integer_literal, ACTIONS 852),
     (sym_hex_integer_literal, ACTIONS 854), (sym_decimal_floating_point_literal, ACTIONS 852),
     (anon_sym_true, ACTIONS 856), (anon_sym_false, ACTIONS 858), (anon_sym_DQUOTE, ACTIONS 860),
     (anon_sym_SQUOTE, ACTIONS 862), (anon_sym_DQUOTE_DQUOTE_DQUOTE, ACTIONS 864),
     (anon_sym_SQUOTE_SQUOTE_SQUOTE, ACTIONS 866), (anon_sym_r_DQUOTE, ACTIONS 868),
     (anon_sym_r_SQUOTE, ACTIONS 870), (anon_sym_r_DQUOTE_DQUOTE_DQUOTE, ACTIONS 872),
     (anon_sym_r_SQUOTE_SQUOTE_SQUOTE, ACTIONS 874), (anon_sym_LBRACE, ACTIONS 876),
     (anon_sym_LBRACK, ACTIONS 880), (anon_sym_null, ACTIONS 882),
     (anon_sym_LPAREN, ACTIONS 884), (sym_equality_operator, ACTIONS 396),
     (anon_sym_LT, ACTIONS 886), (anon_sym_GT, ACTIONS 400), (anon_sym_LT_EQ, ACTIONS 402),
     (anon_sym_GT_EQ, ACTIONS 402), (sym_minus_operator, ACTIONS 888),
     (anon_sym_final, ACTIONS 145), (sym_void_type, ACTIONS 33), (anon_sym_var, ACTIONS 35),
     (anon_sym_Function, ACTIONS 45), (sym_const_builtin, ACTIONS 894),
     (anon_sym_SLASH_SLASH, ACTIONS 3), (anon_sym_SLASH_STAR, ACTIONS 5),
     (anon_sym_SLASH_SLASH_SLASH, ACTIONS 7), (sym__block_comment, ACTIONS 9),
     (sym__documentation_block_comment, ACTIONS 11)]"

lemma row_ok_436: "table_row_ok 436 ts_parse_table_436"
  by (simp add: row_simps ts_parse_table_436_def)

definition ts_parse_table_437 :: table_row where
  "ts_parse_table_437 = [
     (sym__bool_literal, STATE 2124), (sym__numeric_literal, STATE 2124),
     (sym_symbol_literal, STATE 2124), (sym_true, STATE 2120), (sym_false, STATE 2120),
     (sym_string_literal, STATE 2124), (sym__string_literal_double_quotes, STATE 1854),
     (sym__string_literal_single_quotes, STATE 1854),
     (sym__string_literal_double_quotes_multiple, STATE 1854),
     (sym__string_literal_single_quotes_multiple, STATE 1854),
     (sym__raw_string_literal_double_quotes, STATE 1854),
     (sym__raw_string_literal_single_quotes, STATE 1854),
     (sym__raw_string_literal_double_quotes_multiple, STATE 1854),
     (sym__raw_string_literal_single_quotes_multiple, STATE 1854),
     (sym_null_literal, STATE 2124), (sym_relational_operator, STATE 345),
     (sym_const_object_expression, STATE 2124), (sym_type_arguments, STATE 3171),
     (sym__relational_pattern, STATE 2186), (sym__unary_pattern, STATE 2230),
     (sym__primary_pattern, STATE 2129), (sym_cast_pattern, STATE 2231),
     (sym_null_check_pattern, STATE 2231), (sym_null_assert_pattern, STATE 2231),
     (sym_constant_pattern, STATE 2102), (sym_variable_pattern, STATE 2102),
     (sym__parenthesized_pattern, STATE 2102), (sym_list_pattern, STATE 2102),
     (sym_map_pattern, STATE 2102), (sym_record_pattern, STATE 2102),
     (sym_object_pattern, STATE 2102), (sym__type, STATE 3547),
     (sym__type_not_function, STATE 1796), (sym__type_not_void_not_function, STATE 1896),
     (sym_function_type, STATE 1848), (aux_sym__function_type_tails, STATE 1605),
     (sym__function_type_tail, STATE 1704), (sym_record_type, STATE 1805),
     (sym__type_name, STATE 2156), (sym__final_var_or_type, STATE 3469),
     (sym_inferred_type, STATE 3547), (sym_qualified, STATE 2124),
     (sym__function_builtin_identifier, STATE 1463), (sym_final_builtin, STATE 2100),
     (sym_comment, STATE 437), (sym_documentation_comment, STATE 437),
     (aux_sym_string_literal_repeat1, STATE 1475), (sym_identifier, ACTIONS 967),
     (anon_sym_POUND, ACTIONS 850), (sym_decimal_integer_literal, ACTIONS 852),
     (sym_hex_integer_literal, ACTIONS 854), (sym_decimal_floating_point_literal, ACTIONS 852),
     (anon_sym_true, ACTIONS 856), (anon_sym_false, ACTIONS 858), (anon_sym_DQUOTE, ACTIONS 860),
     (anon_sym_SQUOTE, ACTIONS 862), (anon_sym_DQUOTE_DQUOTE_DQUOTE, ACTIONS 864),
     (anon_sym_SQUOTE_SQUOTE_SQUOTE, ACTIONS 866), (anon_sym_r_DQUOTE, ACTIONS 868),
     (anon_sym_r_SQUOTE, ACTIONS 870), (anon_sym_r_DQUOTE_DQUOTE_DQUOTE, ACTIONS 872),
     (anon_sym_r_SQUOTE_SQUOTE_SQUOTE, ACTIONS 874), (anon_sym_LBRACE, ACTIONS 876),
     (anon_sym_LBRACK, ACTIONS 880), (anon_sym_null, ACTIONS 882),
     (anon_sym_LPAREN, ACTIONS 884), (sym_equality_operator, ACTIONS 396),
     (anon_sym_LT, ACTIONS 886), (anon_sym_GT, ACTIONS 400), (anon_sym_LT_EQ, ACTIONS 402),
     (anon_sym_GT_EQ, ACTIONS 402), (sym_minus_operator, ACTIONS 888),
     (anon_sym_final, ACTIONS 145), (sym_void_type, ACTIONS 33), (anon_sym_var, ACTIONS 35),
     (anon_sym_Function, ACTIONS 45), (sym_const_builtin, ACTIONS 894),
     (anon_sym_SLASH_SLASH, ACTIONS 3), (anon_sym_SLASH_STAR, ACTIONS 5),
     (anon_sym_SLASH_SLASH_SLASH, ACTIONS 7), (sym__block_comment, ACTIONS 9),
     (sym__documentation_block_comment, ACTIONS 11)]"

lemma row_ok_437: "table_row_ok 437 ts_parse_table_437"
  by (simp add: row_simps ts_parse_table_437_def)

definition ts_parse_table_438 :: table_row where
  "ts_parse_table_438 = [
     (sym__top_level_definition, STATE 1774), (sym_annotation, STATE 1571),
     (sym_import_or_export, STATE 1572), (sym_library_import, STATE 1577),
     (sym_library_export, STATE 1577), (sym_import_specification, STATE 1581),
     (sym_part_directive, STATE 1671), (sym_part_of_directive, STATE 1725),
     (sym_enum_declaration, STATE 1769), (sym_type_alias, STATE 1769),
     (sym__class_modifiers, STATE 3195), (sym__mixin_class_modifiers, STATE 3373),
     (sym_class_definition, STATE 1769), (sym_extension_declaration, STATE 1769),
     (sym__metadata, STATE 560), (sym_mixin_declaration, STATE 1769),
     (sym_getter_signature, STATE 2207), (sym_setter_signature, STATE 2207),
     (sym__type, STATE 2433), (sym__type_not_function, STATE 1796),
     (sym__type_not_void_not_function, STATE 1896), (sym_function_type, STATE 1848),
     (aux_sym__function_type_tails, STATE 1605), (sym__function_type_tail, STATE 1704),
     (sym_record_type, STATE 1805), (sym__type_name, STATE 1530),
     (sym_inferred_type, STATE 2737), (sym_function_signature, STATE 2207),
     (sym__export, STATE 1869), (sym__function_builtin_identifier, STATE 1463),
     (sym__get, STATE 2411), (sym__import, STATE 1817), (sym_interface, STATE 3539),
     (sym_base, STATE 2767), (sym_abstract, STATE 2228), (sym_sealed, STATE 3539),
     (sym_mixin, STATE 3250), (sym__set, STATE 2377), (sym__typedef, STATE 2082),
     (sym_final_builtin, STATE 1989), (sym__late_builtin, STATE 1957),
     (sym__external_builtin, STATE 1818), (sym_comment, STATE 438),
     (sym_documentation_comment, STATE 438), (aux_sym_program_repeat1, STATE 1050),
     (aux_sym_program_repeat2, STATE 452), (aux_sym_program_repeat3, STATE 462),
     (aux_sym_program_repeat4, STATE 476), (aux_sym__metadata_repeat1, STATE 1454),
     (ts_builtin_sym_end, ACTIONS 1033), (sym_identifier, ACTIONS 15),
     (anon_sym_LPAREN, ACTIONS 17), (anon_sym_AT, ACTIONS 19), (anon_sym_part, ACTIONS 21),
     (anon_sym_enum, ACTIONS 23), (anon_sym_final, ACTIONS 25), (anon_sym_inline, ACTIONS 27),
     (anon_sym_class, ACTIONS 29), (anon_sym_extension, ACTIONS 31), (sym_void_type, ACTIONS 33),
     (anon_sym_var, ACTIONS 35), (sym_part_of_builtin, ACTIONS 41),
     (anon_sym_export, ACTIONS 43), (anon_sym_Function, ACTIONS 45), (anon_sym_get, ACTIONS 47),
     (anon_sym_import, ACTIONS 49), (anon_sym_interface, ACTIONS 51),
     (anon_sym_base, ACTIONS 53), (anon_sym_abstract, ACTIONS 55), (anon_sym_sealed, ACTIONS 57),
     (anon_sym_mixin, ACTIONS 59), (anon_sym_set, ACTIONS 61), (anon_sym_typedef, ACTIONS 63),
     (sym_const_builtin, ACTIONS 65), (anon_sym_late, ACTIONS 67),
     (anon_sym_external, ACTIONS 69), (anon_sym_SLASH_SLASH, ACTIONS 3),
     (anon_sym_SLASH_STAR, ACTIONS 5), (anon_sym_SLASH_SLASH_SLASH, ACTIONS 7),
     (sym__block_comment, ACTIONS 9), (sym__documentation_block_comment, ACTIONS 11)]"

lemma row_ok_438: "table_row_ok 438 ts_parse_table_438"
  by (simp add: row_simps ts_parse_table_438_def)

definition ts_parse_table_439 :: table_row where
  "ts_parse_table_439 = [
     (sym__top_level_definition, STATE 1774), (sym_annotation, STATE 1571),
     (sym_import_or_export, STATE 1572), (sym_library_import, STATE 1577),
     (sym_library_export, STATE 1577), (sym_import_specification, STATE 1581),
     (sym_part_directive, STATE 1671), (sym_part_of_directive, STATE 1725),
     (sym_enum_declaration, STATE 1769), (sym_type_alias, STATE 1769),
     (sym__class_modifiers, STATE 3195), (sym__mixin_class_modifiers, STATE 3373),
     (sym_class_definition, STATE 1769), (sym_extension_declaration, STATE 1769),
     (sym__metadata, STATE 560), (sym_mixin_declaration, STATE 1769),
     (sym_getter_signature, STATE 2207), (sym_setter_signature, STATE 2207),
     (sym__type, STATE 2433), (sym__type_not_function, STATE 1796),
     (sym__type_not_void_not_function, STATE 1896), (sym_function_type, STATE 1848),
     (aux_sym__function_type_tails, STATE 1605), (sym__function_type_tail, STATE 1704),
     (sym_record_type, STATE 1805), (sym__type_name, STATE 1530),
     (sym_inferred_type, STATE 2737), (sym_function_signature, STATE 2207),
     (sym__export, STATE 1869), (sym__function_builtin_identifier, STATE 1463),
     (sym__get, STATE 2411), (sym__import, STATE 1817), (sym_interface, STATE 3539),
     (sym_base, STATE 2767), (sym_abstract, STATE 2228), (sym_sealed, STATE 3539),
     (sym_mixin, STATE 3250), (sym__set, STATE 2377), (sym__typedef, STATE 2082),
     (sym_final_builtin, STATE 1989), (sym__late_builtin, STATE 1957),
     (sym__external_builtin, STATE 1818), (sym_comment, STATE 439),
     (sym_documentation_comment, STATE 439), (aux_sym_program_repeat1, STATE 1050),
     (aux_sym_program_repeat2, STATE 450), (aux_sym_program_repeat3, STATE 468),
     (aux_sym_program_repeat4, STATE 477), (aux_sym__metadata_repeat1, STATE 1454),
     (ts_builtin_sym_end, ACTIONS 1035), (sym_identifier, ACTIONS 15),
     (anon_sym_LPAREN, ACTIONS 17), (anon_sym_AT, ACTIONS 19), (anon_sym_part, ACTIONS 21),
     (anon_sym_enum, ACTIONS 23), (anon_sym_final, ACTIONS 25), (anon_sym_inline, ACTIONS 27),
     (anon_sym_class, ACTIONS 29), (anon_sym_extension, ACTIONS 31), (sym_void_type, ACTIONS 33),
     (anon_sym_var, ACTIONS 35), (sym_part_of_builtin, ACTIONS 41),
     (anon_sym_export, ACTIONS 43), (anon_sym_Function, ACTIONS 45), (anon_sym_get, ACTIONS 47),
     (anon_sym_import, ACTIONS 49), (anon_sym_interface, ACTIONS 51),
     (anon_sym_base, ACTIONS 53), (anon_sym_abstract, ACTIONS 55), (anon_sym_sealed, ACTIONS 57),
     (anon_sym_mixin, ACTIONS 59), (anon_sym_set, ACTIONS 61), (anon_sym_typedef, ACTIONS 63),
     (sym_const_builtin, ACTIONS 65), (anon_sym_late, ACTIONS 67),
     (anon_sym_external, ACTIONS 69), (anon_sym_SLASH_SLASH, ACTIONS 3),
     (anon_sym_SLASH_STAR, ACTIONS 5), (anon_sym_SLASH_SLASH_SLASH, ACTIONS 7),
     (sym__block_comment, ACTIONS 9), (sym__documentation_block_comment, ACTIONS 11)]"

lemma row_ok_439: "table_row_ok 439 ts_parse_table_439"
  by (simp add: row_simps ts_parse_table_439_def)

definition ts_parse_table_440 :: table_row where
  "ts_parse_table_440 = [
     (sym__top_level_definition, STATE 1774), (sym_annotation, STATE 1571),
     (sym_import_or_export, STATE 1572), (sym_library_import, STATE 1577),
     (sym_library_export, STATE 1577), (sym_import_specification, STATE 1581),
     (sym_part_directive, STATE 1671), (sym_part_of_directive, STATE 1725),
     (sym_enum_declaration, STATE 1769), (sym_type_alias, STATE 1769),
     (sym__class_modifiers, STATE 3195), (sym__mixin_class_modifiers, STATE 3373),
     (sym_class_definition, STATE 1769), (sym_extension_declaration, STATE 1769),
     (sym__metadata, STATE 560), (sym_mixin_declaration, STATE 1769),
     (sym_getter_signature, STATE 2207), (sym_setter_signature, STATE 2207),
     (sym__type, STATE 2433), (sym__type_not_function, STATE 1796),
     (sym__type_not_void_not_function, STATE 1896), (sym_function_type, STATE 1848),
     (aux_sym__function_type_tails, STATE 1605), (sym__function_type_tail, STATE 1704),
     (sym_record_type, STATE 1805), (sym__type_name, STATE 1530),
     (sym_inferred_type, STATE 2737), (sym_function_signature, STATE 2207),
     (sym__export, STATE 1869), (sym__function_builtin_identifier, STATE 1463),
     (sym__get, STATE 2411), (sym__import, STATE 1817), (sym_interface, STATE 3539),
     (sym_base, STATE 2767), (sym_abstract, STATE 2228), (sym_sealed, STATE 3539),
     (sym_mixin, STATE 3250), (sym__set, STATE 2377), (sym__typedef, STATE 2082),
     (sym_final_builtin, STATE 1989), (sym__late_builtin, STATE 1957),
     (sym__external_builtin, STATE 1818), (sym_comment, STATE 440),
     (sym_documentation_comment, STATE 440), (aux_sym_program_repeat1, STATE 1050),
     (aux_sym_program_repeat2, STATE 451), (aux_sym_program_repeat3, STATE 463),
     (aux_sym_program_repeat4, STATE 478), (aux_sym__metadata_repeat1, STATE 1454),
     (ts_builtin_sym_end, ACTIONS 1037), (sym_identifier, ACTIONS 15),
     (anon_sym_LPAREN, ACTIONS 17), (anon_sym_AT, ACTIONS 19), (anon_sym_part, ACTIONS 21),
     (anon_sym_enum, ACTIONS 23), (anon_sym_final, ACTIONS 25), (anon_sym_inline, ACTIONS 27),
     (anon_sym_class, ACTIONS 29), (anon_sym_extension, ACTIONS 31), (sym_void_type, ACTIONS 33),
     (anon_sym_var, ACTIONS 35), (sym_part_of_builtin, ACTIONS 41),
     (anon_sym_export, ACTIONS 43), (anon_sym_Function, ACTIONS 45), (anon_sym_get, ACTIONS 47),
     (anon_sym_import, ACTIONS 49), (anon_sym_interface, ACTIONS 51),
     (anon_sym_base, ACTIONS 53), (anon_sym_abstract, ACTIONS 55), (anon_sym_sealed, ACTIONS 57),
     (anon_sym_mixin, ACTIONS 59), (anon_sym_set, ACTIONS 61), (anon_sym_typedef, ACTIONS 63),
     (sym_const_builtin, ACTIONS 65), (anon_sym_late, ACTIONS 67),
     (anon_sym_external, ACTIONS 69), (anon_sym_SLASH_SLASH, ACTIONS 3),
     (anon_sym_SLASH_STAR, ACTIONS 5), (anon_sym_SLASH_SLASH_SLASH, ACTIONS 7),
     (sym__block_comment, ACTIONS 9), (sym__documentation_block_comment, ACTIONS 11)]"

lemma row_ok_440: "table_row_ok 440 ts_parse_table_440"
  by (simp add: row_simps ts_parse_table_440_def)

definition ts_parse_table_441 :: table_row where
  "ts_parse_table_441 = [
     (sym__top_level_definition, STATE 1774), (sym_annotation, STATE 1571),
     (sym_import_or_export, STATE 1572), (sym_library_import, STATE 1577),
     (sym_library_export, STATE 1577), (sym_import_specification, STATE 1581),
     (sym_part_directive, STATE 1671), (sym_part_of_directive, STATE 1725),
     (sym_enum_declaration, STATE 1769), (sym_type_alias, STATE 1769),
     (sym__class_modifiers, STATE 3195), (sym__mixin_class_modifiers, STATE 3373),
     (sym_class_definition, STATE 1769), (sym_extension_declaration, STATE 1769),
     (sym__metadata, STATE 560), (sym_mixin_declaration, STATE 1769),
     (sym_getter_signature, STATE 2207), (sym_setter_signature, STATE 2207),
     (sym__type, STATE 2433), (sym__type_not_function, STATE 1796),
     (sym__type_not_void_not_function, STATE 1896), (sym_function_type, STATE 1848),
     (aux_sym__function_type_tails, STATE 1605), (sym__function_type_tail, STATE 1704),
     (sym_record_type, STATE 1805), (sym__type_name, STATE 1530),
     (sym_inferred_type, STATE 2737), (sym_function_signature, STATE 2207),
     (sym__export, STATE 1869), (sym__function_builtin_identifier, STATE 1463),
     (sym__get, STATE 2411), (sym__import, STATE 1817), (sym_interface, STATE 3539),
     (sym_base, STATE 2767), (sym_abstract, STATE 2228), (sym_sealed, STATE 3539),
     (sym_mixin, STATE 3250), (sym__set, STATE 2377), (sym__typedef, STATE 2082),
     (sym_final_builtin, STATE 1989), (sym__late_builtin, STATE 1957),
     (sym__external_builtin, STATE 1818), (sym_comment, STATE 441),
     (sym_documentation_comment, STATE 441), (aux_sym_program_repeat1, STATE 439),
     (aux_sym_program_repeat2, STATE 451), (aux_sym_program_repeat3, STATE 463),
     (aux_sym_program_repeat4, STATE 478), (aux_sym__metadata_repeat1, STATE 1454),
     (ts_builtin_sym_end, ACTIONS 1037), (sym_identifier, ACTIONS 15),
     (anon_sym_LPAREN, ACTIONS 17), (anon_sym_AT, ACTIONS 19), (anon_sym_part, ACTIONS 21),
     (anon_sym_enum, ACTIONS 23), (anon_sym_final, ACTIONS 25), (anon_sym_inline, ACTIONS 27),
     (anon_sym_class, ACTIONS 29), (anon_sym_extension, ACTIONS 31), (sym_void_type, ACTIONS 33),
     (anon_sym_var, ACTIONS 35), (sym_part_of_builtin, ACTIONS 41),
     (anon_sym_export, ACTIONS 43), (anon_sym_Function, ACTIONS 45), (anon_sym_get, ACTIONS 47),
     (anon_sym_import, ACTIONS 49), (anon_sym_interface, ACTIONS 51),
     (anon_sym_base, ACTIONS 53), (anon_sym_abstract, ACTIONS 55), (anon_sym_sealed, ACTIONS 57),
     (anon_sym_mixin, ACTIONS 59), (anon_sym_set, ACTIONS 61), (anon_sym_typedef, ACTIONS 63),
     (sym_const_builtin, ACTIONS 65), (anon_sym_late, ACTIONS 67),
     (anon_sym_external, ACTIONS 69), (anon_sym_SLASH_SLASH, ACTIONS 3),
     (anon_sym_SLASH_STAR, ACTIONS 5), (anon_sym_SLASH_SLASH_SLASH, ACTIONS 7),
     (sym__block_comment, ACTIONS 9), (sym__documentation_block_comment, ACTIONS 11)]"

lemma row_ok_441: "table_row_ok 441 ts_parse_table_441"
  by (simp add: row_simps ts_parse_table_441_def)

definition ts_parse_table_442 :: table_row where
  "ts_parse_table_442 = [
     (sym__top_level_definition, STATE 1774), (sym_annotation, STATE 1571),
     (sym_import_or_export, STATE 1572), (sym_library_import, STATE 1577),
     (sym_library_export, STATE 1577), (sym_import_specification, STATE 1581),
     (sym_part_directive, STATE 1671), (sym_part_of_directive, STATE 1725),
     (sym_enum_declaration, STATE 1769), (sym_type_alias, STATE 1769),
     (sym__class_modifiers, STATE 3195), (sym__mixin_class_modifiers, STATE 3373),
     (sym_class_definition, STATE 1769), (sym_extension_declaration, STATE 1769),
     (sym__metadata, STATE 560), (sym_mixin_declaration, STATE 1769),
     (sym_getter_signature, STATE 2207), (sym_setter_signature, STATE 2207),
     (sym__type, STATE 2433), (sym__type_not_function, STATE 1796),
     (sym__type_not_void_not_function, STATE 1896), (sym_function_type, STATE 1848),
     (aux_sym__function_type_tails, STATE 1605), (sym__function_type_tail, STATE 1704),
     (sym_record_type, STATE 1805), (sym__type_name, STATE 1530),
     (sym_inferred_type, STATE 2737), (sym_function_signature, STATE 2207),
     (sym__export, STATE 1869), (sym__function_builtin_identifier, STATE 1463),
     (sym__get, STATE 2411), (sym__import, STATE 1817), (sym_interface, STATE 3539),
     (sym_base, STATE 2767), (sym_abstract, STATE 2228), (sym_sealed, STATE 3539),
     (sym_mixin, STATE 3250), (sym__set, STATE 2377), (sym__typedef, STATE 2082),
     (sym_final_builtin, STATE 1989), (sym__late_builtin, STATE 1957),
     (sym__external_builtin, STATE 1818), (sym_comment, STATE 442),
     (sym_documentation_comment, STATE 442), (aux_sym_program_repeat1, STATE 440),
     (aux_sym_program_repeat2, STATE 452), (aux_sym_program_repeat3, STATE 462),
     (aux_sym_program_repeat4, STATE 476), (aux_sym__metadata_repeat1, STATE 1454),
     (ts_builtin_sym_end, ACTIONS 1033), (sym_identifier, ACTIONS 15),
     (anon_sym_LPAREN, ACTIONS 17), (anon_sym_AT, ACTIONS 19), (anon_sym_part, ACTIONS 21),
     (anon_sym_enum, ACTIONS 23), (anon_sym_final, ACTIONS 25), (anon_sym_inline, ACTIONS 27),
     (anon_sym_class, ACTIONS 29), (anon_sym_extension, ACTIONS 31), (sym_void_type, ACTIONS 33),
     (anon_sym_var, ACTIONS 35), (sym_part_of_builtin, ACTIONS 41),
     (anon_sym_export, ACTIONS 43), (anon_sym_Function, ACTIONS 45), (anon_sym_get, ACTIONS 47),
     (anon_sym_import, ACTIONS 49), (anon_sym_interface, ACTIONS 51),
     (anon_sym_base, ACTIONS 53), (anon_sym_abstract, ACTIONS 55), (anon_sym_sealed, ACTIONS 57),
     (anon_sym_mixin, ACTIONS 59), (anon_sym_set, ACTIONS 61), (anon_sym_typedef, ACTIONS 63),
     (sym_const_builtin, ACTIONS 65), (anon_sym_late, ACTIONS 67),
     (anon_sym_external, ACTIONS 69), (anon_sym_SLASH_SLASH, ACTIONS 3),
     (anon_sym_SLASH_STAR, ACTIONS 5), (anon_sym_SLASH_SLASH_SLASH, ACTIONS 7),
     (sym__block_comment, ACTIONS 9), (sym__documentation_block_comment, ACTIONS 11)]"

lemma row_ok_442: "table_row_ok 442 ts_parse_table_442"
  by (simp add: row_simps ts_parse_table_442_def)

definition ts_parse_table_443 :: table_row where
  "ts_parse_table_443 = [
     (sym_comment, STATE 443), (sym_documentation_comment, STATE 443),
     (ts_builtin_sym_end, ACTIONS 1039), (sym_identifier, ACTIONS 1041),
     (anon_sym_POUND, ACTIONS 1039), (sym_decimal_integer_literal, ACTIONS 1041),
     (sym_hex_integer_literal, ACTIONS 1039), (sym_decimal_floating_point_literal, ACTIONS 1041),
     (anon_sym_true, ACTIONS 1041), (anon_sym_false, ACTIONS 1041),
     (anon_sym_DQUOTE, ACTIONS 1041), (anon_sym_SQUOTE, ACTIONS 1041),
     (anon_sym_DQUOTE_DQUOTE_DQUOTE, ACTIONS 1039),
     (anon_sym_SQUOTE_SQUOTE_SQUOTE, ACTIONS 1039), (anon_sym_r_DQUOTE, ACTIONS 1041),
     (anon_sym_r_SQUOTE, ACTIONS 1041), (anon_sym_r_DQUOTE_DQUOTE_DQUOTE, ACTIONS 1039),
     (anon_sym_r_SQUOTE_SQUOTE_SQUOTE, ACTIONS 1039), (anon_sym_LBRACE, ACTIONS 1039),
     (anon_sym_RBRACE, ACTIONS 1039), (anon_sym_LBRACK, ACTIONS 1039),
     (anon_sym_null, ACTIONS 1041), (anon_sym_LPAREN, ACTIONS 1039),
     (anon_sym_throw, ACTIONS 1041), (anon_sym_QMARK, ACTIONS 1041), (anon_sym_LT, ACTIONS 1039),
     (sym_increment_operator, ACTIONS 1039), (sym_minus_operator, ACTIONS 1041),
     (anon_sym_BANG, ACTIONS 1039), (anon_sym_TILDE, ACTIONS 1039),
     (anon_sym_await, ACTIONS 1041), (anon_sym_DOT, ACTIONS 1041),
     (anon_sym_QMARK_DOT, ACTIONS 1039), (anon_sym_switch, ACTIONS 1041),
     (anon_sym_default, ACTIONS 1041), (anon_sym_do, ACTIONS 1041),
     (anon_sym_while, ACTIONS 1041), (anon_sym_continue, ACTIONS 1041),
     (anon_sym_yield, ACTIONS 1041), (anon_sym_return, ACTIONS 1041),
     (anon_sym_try, ACTIONS 1041), (anon_sym_if, ACTIONS 1041), (anon_sym_case, ACTIONS 1041),
     (anon_sym_else, ACTIONS 1041), (anon_sym_for, ACTIONS 1041), (anon_sym_AT, ACTIONS 1039),
     (anon_sym_enum, ACTIONS 1041), (anon_sym_final, ACTIONS 1041),
     (anon_sym_inline, ACTIONS 1041), (anon_sym_class, ACTIONS 1041),
     (anon_sym_extension, ACTIONS 1041), (sym_void_type, ACTIONS 1041),
     (anon_sym_var, ACTIONS 1041), (sym_break_builtin, ACTIONS 1041),
     (sym_assert_builtin, ACTIONS 1041), (sym_rethrow_builtin, ACTIONS 1041),
     (anon_sym_covariant, ACTIONS 1041), (anon_sym_factory, ACTIONS 1041),
     (anon_sym_Function, ACTIONS 1041), (anon_sym_get, ACTIONS 1041),
     (anon_sym_interface, ACTIONS 1041), (anon_sym_base, ACTIONS 1041),
     (anon_sym_abstract, ACTIONS 1041), (anon_sym_sealed, ACTIONS 1041),
     (anon_sym_operator, ACTIONS 1041), (anon_sym_mixin, ACTIONS 1041),
     (anon_sym_set, ACTIONS 1041), (anon_sym_static, ACTIONS 1041),
     (anon_sym_typedef, ACTIONS 1041), (anon_sym_new, ACTIONS 1041),
     (sym_const_builtin, ACTIONS 1041), (anon_sym_late, ACTIONS 1041),
     (anon_sym_external, ACTIONS 1041), (anon_sym_this, ACTIONS 1041),
     (anon_sym_super, ACTIONS 1041), (anon_sym_SLASH_SLASH, ACTIONS 3),
     (anon_sym_SLASH_STAR, ACTIONS 5), (anon_sym_SLASH_SLASH_SLASH, ACTIONS 7),
     (sym__block_comment, ACTIONS 9), (sym__documentation_block_comment, ACTIONS 11)]"

lemma row_ok_443: "table_row_ok 443 ts_parse_table_443"
  by (simp add: row_simps ts_parse_table_443_def)

definition ts_parse_table_444 :: table_row where
  "ts_parse_table_444 = [
     (sym_comment, STATE 444), (sym_documentation_comment, STATE 444),
     (ts_builtin_sym_end, ACTIONS 975), (sym_identifier, ACTIONS 973),
     (anon_sym_POUND, ACTIONS 975), (sym_decimal_integer_literal, ACTIONS 973),
     (sym_hex_integer_literal, ACTIONS 975), (sym_decimal_floating_point_literal, ACTIONS 973),
     (anon_sym_true, ACTIONS 973), (anon_sym_false, ACTIONS 973), (anon_sym_DQUOTE, ACTIONS 973),
     (anon_sym_SQUOTE, ACTIONS 973), (anon_sym_DQUOTE_DQUOTE_DQUOTE, ACTIONS 975),
     (anon_sym_SQUOTE_SQUOTE_SQUOTE, ACTIONS 975), (anon_sym_r_DQUOTE, ACTIONS 973),
     (anon_sym_r_SQUOTE, ACTIONS 973), (anon_sym_r_DQUOTE_DQUOTE_DQUOTE, ACTIONS 975),
     (anon_sym_r_SQUOTE_SQUOTE_SQUOTE, ACTIONS 975), (anon_sym_LBRACE, ACTIONS 975),
     (anon_sym_RBRACE, ACTIONS 975), (anon_sym_LBRACK, ACTIONS 975),
     (anon_sym_null, ACTIONS 973), (anon_sym_LPAREN, ACTIONS 975), (anon_sym_throw, ACTIONS 973),
     (anon_sym_QMARK, ACTIONS 973), (anon_sym_LT, ACTIONS 975),
     (sym_increment_operator, ACTIONS 975), (sym_minus_operator, ACTIONS 973),
     (anon_sym_BANG, ACTIONS 975), (anon_sym_TILDE, ACTIONS 975), (anon_sym_await, ACTIONS 973),
     (anon_sym_DOT, ACTIONS 973), (anon_sym_QMARK_DOT, ACTIONS 975),
     (anon_sym_switch, ACTIONS 973), (anon_sym_default, ACTIONS 973), (anon_sym_do, ACTIONS 973),
     (anon_sym_while, ACTIONS 973), (anon_sym_continue, ACTIONS 973),
     (anon_sym_yield, ACTIONS 973), (anon_sym_return, ACTIONS 973), (anon_sym_try, ACTIONS 973),
     (anon_sym_if, ACTIONS 973), (anon_sym_case, ACTIONS 973), (anon_sym_else, ACTIONS 973),
     (anon_sym_for, ACTIONS 973), (anon_sym_AT, ACTIONS 975), (anon_sym_enum, ACTIONS 973),
     (anon_sym_final, ACTIONS 973), (anon_sym_inline, ACTIONS 973),
     (anon_sym_class, ACTIONS 973), (anon_sym_extension, ACTIONS 973),
     (sym_void_type, ACTIONS 973), (anon_sym_var, ACTIONS 973), (sym_break_builtin, ACTIONS 973),
     (sym_assert_builtin, ACTIONS 973), (sym_rethrow_builtin, ACTIONS 973),
     (anon_sym_covariant, ACTIONS 973), (anon_sym_factory, ACTIONS 973),
     (anon_sym_Function, ACTIONS 973), (anon_sym_get, ACTIONS 973),
     (anon_sym_interface, ACTIONS 973), (anon_sym_base, ACTIONS 973),
     (anon_sym_abstract, ACTIONS 973), (anon_sym_sealed, ACTIONS 973),
     (anon_sym_operator, ACTIONS 973), (anon_sym_mixin, ACTIONS 973),
     (anon_sym_set, ACTIONS 973), (anon_sym_static, ACTIONS 973),
     (anon_sym_typedef, ACTIONS 973), (anon_sym_new, ACTIONS 973),
     (sym_const_builtin, ACTIONS 973), (anon_sym_late, ACTIONS 973),
     (anon_sym_external, ACTIONS 973), (anon_sym_this, ACTIONS 973),
     (anon_sym_super, ACTIONS 973), (anon_sym_SLASH_SLASH, ACTIONS 3),
     (anon_sym_SLASH_STAR, ACTIONS 5), (anon_sym_SLASH_SLASH_SLASH, ACTIONS 7),
     (sym__block_comment, ACTIONS 9), (sym__documentation_block_comment, ACTIONS 11)]"

lemma row_ok_444: "table_row_ok 444 ts_parse_table_444"
  by (simp add: row_simps ts_parse_table_444_def)

definition ts_parse_table_445 :: table_row where
  "ts_parse_table_445 = [
     (sym_comment, STATE 445), (sym_documentation_comment, STATE 445),
     (ts_builtin_sym_end, ACTIONS 1043), (sym_identifier, ACTIONS 1045),
     (anon_sym_POUND, ACTIONS 1043), (sym_decimal_integer_literal, ACTIONS 1045),
     (sym_hex_integer_literal, ACTIONS 1043), (sym_decimal_floating_point_literal, ACTIONS 1045),
     (anon_sym_true, ACTIONS 1045), (anon_sym_false, ACTIONS 1045),
     (anon_sym_DQUOTE, ACTIONS 1045), (anon_sym_SQUOTE, ACTIONS 1045),
     (anon_sym_DQUOTE_DQUOTE_DQUOTE, ACTIONS 1043),
     (anon_sym_SQUOTE_SQUOTE_SQUOTE, ACTIONS 1043), (anon_sym_r_DQUOTE, ACTIONS 1045),
     (anon_sym_r_SQUOTE, ACTIONS 1045), (anon_sym_r_DQUOTE_DQUOTE_DQUOTE, ACTIONS 1043),
     (anon_sym_r_SQUOTE_SQUOTE_SQUOTE, ACTIONS 1043), (anon_sym_LBRACE, ACTIONS 1043),
     (anon_sym_RBRACE, ACTIONS 1043), (anon_sym_LBRACK, ACTIONS 1043),
     (anon_sym_null, ACTIONS 1045), (anon_sym_LPAREN, ACTIONS 1043),
     (anon_sym_RPAREN, ACTIONS 1043), (anon_sym_throw, ACTIONS 1045),
     (anon_sym_LT, ACTIONS 1043), (sym_increment_operator, ACTIONS 1043),
     (sym_minus_operator, ACTIONS 1045), (anon_sym_BANG, ACTIONS 1043),
     (anon_sym_TILDE, ACTIONS 1043), (anon_sym_await, ACTIONS 1045),
     (anon_sym_SEMI, ACTIONS 1043), (anon_sym_switch, ACTIONS 1045),
     (anon_sym_default, ACTIONS 1045), (anon_sym_do, ACTIONS 1045),
     (anon_sym_while, ACTIONS 1045), (anon_sym_continue, ACTIONS 1045),
     (anon_sym_yield, ACTIONS 1045), (anon_sym_return, ACTIONS 1045),
     (anon_sym_try, ACTIONS 1045), (anon_sym_if, ACTIONS 1045), (anon_sym_case, ACTIONS 1045),
     (anon_sym_else, ACTIONS 1045), (anon_sym_for, ACTIONS 1045), (anon_sym_AT, ACTIONS 1043),
     (anon_sym_enum, ACTIONS 1045), (anon_sym_final, ACTIONS 1045),
     (anon_sym_inline, ACTIONS 1045), (anon_sym_class, ACTIONS 1045),
     (anon_sym_extension, ACTIONS 1045), (sym_void_type, ACTIONS 1045),
     (anon_sym_var, ACTIONS 1045), (sym_break_builtin, ACTIONS 1045),
     (sym_assert_builtin, ACTIONS 1045), (sym_rethrow_builtin, ACTIONS 1045),
     (anon_sym_covariant, ACTIONS 1045), (anon_sym_factory, ACTIONS 1045),
     (anon_sym_Function, ACTIONS 1045), (anon_sym_get, ACTIONS 1045),
     (anon_sym_interface, ACTIONS 1045), (anon_sym_base, ACTIONS 1045),
     (anon_sym_abstract, ACTIONS 1045), (anon_sym_sealed, ACTIONS 1045),
     (anon_sym_operator, ACTIONS 1045), (anon_sym_mixin, ACTIONS 1045),
     (anon_sym_set, ACTIONS 1045), (anon_sym_static, ACTIONS 1045),
     (anon_sym_typedef, ACTIONS 1045), (anon_sym_new, ACTIONS 1045),
     (sym_const_builtin, ACTIONS 1045), (anon_sym_late, ACTIONS 1045),
     (anon_sym_external, ACTIONS 1045), (anon_sym_this, ACTIONS 1045),
     (anon_sym_super, ACTIONS 1045), (anon_sym_SLASH_SLASH, ACTIONS 3),
     (anon_sym_SLASH_STAR, ACTIONS 5), (anon_sym_SLASH_SLASH_SLASH, ACTIONS 7),
     (sym__block_comment, ACTIONS 9), (sym__documentation_block_comment, ACTIONS 11)]"

lemma row_ok_445: "table_row_ok 445 ts_parse_table_445"
  by (simp add: row_simps ts_parse_table_445_def)

definition ts_parse_table_446 :: table_row where
  "ts_parse_table_446 = [
     (sym_comment, STATE 446), (sym_documentation_comment, STATE 446),
     (ts_builtin_sym_end, ACTIONS 1047), (sym_identifier, ACTIONS 1049),
     (anon_sym_POUND, ACTIONS 1047), (sym_decimal_integer_literal, ACTIONS 1049),
     (sym_hex_integer_literal, ACTIONS 1047), (sym_decimal_floating_point_literal, ACTIONS 1049),
     (anon_sym_true, ACTIONS 1049), (anon_sym_false, ACTIONS 1049),
     (anon_sym_DQUOTE, ACTIONS 1049), (anon_sym_SQUOTE, ACTIONS 1049),
     (anon_sym_DQUOTE_DQUOTE_DQUOTE, ACTIONS 1047),
     (anon_sym_SQUOTE_SQUOTE_SQUOTE, ACTIONS 1047), (anon_sym_r_DQUOTE, ACTIONS 1049),
     (anon_sym_r_SQUOTE, ACTIONS 1049), (anon_sym_r_DQUOTE_DQUOTE_DQUOTE, ACTIONS 1047),
     (anon_sym_r_SQUOTE_SQUOTE_SQUOTE, ACTIONS 1047), (anon_sym_LBRACE, ACTIONS 1047),
     (anon_sym_RBRACE, ACTIONS 1047), (anon_sym_LBRACK, ACTIONS 1047),
     (anon_sym_null, ACTIONS 1049), (anon_sym_LPAREN, ACTIONS 1047),
     (anon_sym_throw, ACTIONS 1049), (anon_sym_LT, ACTIONS 1047),
     (sym_increment_operator, ACTIONS 1047), (sym_minus_operator, ACTIONS 1049),
     (anon_sym_BANG, ACTIONS 1047), (anon_sym_TILDE, ACTIONS 1047),
     (anon_sym_await, ACTIONS 1049), (anon_sym_switch, ACTIONS 1049),
     (anon_sym_default, ACTIONS 1049), (anon_sym_do, ACTIONS 1049),
     (anon_sym_while, ACTIONS 1049), (anon_sym_continue, ACTIONS 1049),
     (anon_sym_yield, ACTIONS 1049), (anon_sym_return, ACTIONS 1049),
     (anon_sym_try, ACTIONS 1049), (anon_sym_if, ACTIONS 1049), (anon_sym_case, ACTIONS 1049),
     (anon_sym_else, ACTIONS 1049), (anon_sym_for, ACTIONS 1049), (anon_sym_AT, ACTIONS 1047),
     (anon_sym_enum, ACTIONS 1049), (anon_sym_final, ACTIONS 1049),
     (anon_sym_inline, ACTIONS 1049), (anon_sym_class, ACTIONS 1049),
     (anon_sym_extension, ACTIONS 1049), (sym_void_type, ACTIONS 1049),
     (anon_sym_var, ACTIONS 1049), (sym_break_builtin, ACTIONS 1049),
     (sym_assert_builtin, ACTIONS 1049), (sym_rethrow_builtin, ACTIONS 1049),
     (anon_sym_covariant, ACTIONS 1049), (anon_sym_factory, ACTIONS 1049),
     (anon_sym_Function, ACTIONS 1049), (anon_sym_get, ACTIONS 1049),
     (anon_sym_interface, ACTIONS 1049), (anon_sym_base, ACTIONS 1049),
     (anon_sym_abstract, ACTIONS 1049), (anon_sym_sealed, ACTIONS 1049),
     (anon_sym_operator, ACTIONS 1049), (anon_sym_mixin, ACTIONS 1049),
     (anon_sym_set, ACTIONS 1049), (anon_sym_static, ACTIONS 1049),
     (anon_sym_typedef, ACTIONS 1049), (anon_sym_new, ACTIONS 1049),
     (sym_const_builtin, ACTIONS 1049), (anon_sym_late, ACTIONS 1049),
     (anon_sym_external, ACTIONS 1049), (anon_sym_this, ACTIONS 1049),
     (anon_sym_super, ACTIONS 1049), (anon_sym_SLASH_SLASH, ACTIONS 3),
     (anon_sym_SLASH_STAR, ACTIONS 5), (anon_sym_SLASH_SLASH_SLASH, ACTIONS 7),
     (sym__block_comment, ACTIONS 9), (sym__documentation_block_comment, ACTIONS 11)]"

lemma row_ok_446: "table_row_ok 446 ts_parse_table_446"
  by (simp add: row_simps ts_parse_table_446_def)

definition ts_parse_table_447 :: table_row where
  "ts_parse_table_447 = [
     (sym_comment, STATE 447), (sym_documentation_comment, STATE 447),
     (ts_builtin_sym_end, ACTIONS 1051), (sym_identifier, ACTIONS 1053),
     (anon_sym_POUND, ACTIONS 1051), (sym_decimal_integer_literal, ACTIONS 1053),
     (sym_hex_integer_literal, ACTIONS 1051), (sym_decimal_floating_point_literal, ACTIONS 1053),
     (anon_sym_true, ACTIONS 1053), (anon_sym_false, ACTIONS 1053),
     (anon_sym_DQUOTE, ACTIONS 1053), (anon_sym_SQUOTE, ACTIONS 1053),
     (anon_sym_DQUOTE_DQUOTE_DQUOTE, ACTIONS 1051),
     (anon_sym_SQUOTE_SQUOTE_SQUOTE, ACTIONS 1051), (anon_sym_r_DQUOTE, ACTIONS 1053),
     (anon_sym_r_SQUOTE, ACTIONS 1053), (anon_sym_r_DQUOTE_DQUOTE_DQUOTE, ACTIONS 1051),
     (anon_sym_r_SQUOTE_SQUOTE_SQUOTE, ACTIONS 1051), (anon_sym_LBRACE, ACTIONS 1051),
     (anon_sym_RBRACE, ACTIONS 1051), (anon_sym_LBRACK, ACTIONS 1051),
     (anon_sym_null, ACTIONS 1053), (anon_sym_LPAREN, ACTIONS 1051),
     (anon_sym_throw, ACTIONS 1053), (anon_sym_LT, ACTIONS 1051),
     (sym_increment_operator, ACTIONS 1051), (sym_minus_operator, ACTIONS 1053),
     (anon_sym_BANG, ACTIONS 1051), (anon_sym_TILDE, ACTIONS 1051),
     (anon_sym_await, ACTIONS 1053), (anon_sym_switch, ACTIONS 1053),
     (anon_sym_default, ACTIONS 1053), (anon_sym_do, ACTIONS 1053),
     (anon_sym_while, ACTIONS 1053), (anon_sym_continue, ACTIONS 1053),
     (anon_sym_yield, ACTIONS 1053), (anon_sym_return, ACTIONS 1053),
     (anon_sym_try, ACTIONS 1053), (anon_sym_if, ACTIONS 1053), (anon_sym_case, ACTIONS 1053),
     (anon_sym_else, ACTIONS 1053), (anon_sym_for, ACTIONS 1053), (anon_sym_AT, ACTIONS 1051),
     (anon_sym_enum, ACTIONS 1053), (anon_sym_final, ACTIONS 1053),
     (anon_sym_inline, ACTIONS 1053), (anon_sym_class, ACTIONS 1053),
     (anon_sym_extension, ACTIONS 1053), (sym_void_type, ACTIONS 1053),
     (anon_sym_var, ACTIONS 1053), (sym_break_builtin, ACTIONS 1053),
     (sym_assert_builtin, ACTIONS 1053), (sym_rethrow_builtin, ACTIONS 1053),
     (anon_sym_covariant, ACTIONS 1053), (anon_sym_factory, ACTIONS 1053),
     (anon_sym_Function, ACTIONS 1053), (anon_sym_get, ACTIONS 1053),
     (anon_sym_interface, ACTIONS 1053), (anon_sym_base, ACTIONS 1053),
     (anon_sym_abstract, ACTIONS 1053), (anon_sym_sealed, ACTIONS 1053),
     (anon_sym_operator, ACTIONS 1053), (anon_sym_mixin, ACTIONS 1053),
     (anon_sym_set, ACTIONS 1053), (anon_sym_static, ACTIONS 1053),
     (anon_sym_typedef, ACTIONS 1053), (anon_sym_new, ACTIONS 1053),
     (sym_const_builtin, ACTIONS 1053), (anon_sym_late, ACTIONS 1053),
     (anon_sym_external, ACTIONS 1053), (anon_sym_this, ACTIONS 1053),
     (anon_sym_super, ACTIONS 1053), (anon_sym_SLASH_SLASH, ACTIONS 3),
     (anon_sym_SLASH_STAR, ACTIONS 5), (anon_sym_SLASH_SLASH_SLASH, ACTIONS 7),
     (sym__block_comment, ACTIONS 9), (sym__documentation_block_comment, ACTIONS 11)]"

lemma row_ok_447: "table_row_ok 447 ts_parse_table_447"
  by (simp add: row_simps ts_parse_table_447_def)

definition ts_parse_table_448 :: table_row where
  "ts_parse_table_448 = [
     (sym_comment, STATE 448), (sym_documentation_comment, STATE 448),
     (ts_builtin_sym_end, ACTIONS 1055), (sym_identifier, ACTIONS 1057),
     (anon_sym_POUND, ACTIONS 1055), (sym_decimal_integer_literal, ACTIONS 1057),
     (sym_hex_integer_literal, ACTIONS 1055), (sym_decimal_floating_point_literal, ACTIONS 1057),
     (anon_sym_true, ACTIONS 1057), (anon_sym_false, ACTIONS 1057),
     (anon_sym_DQUOTE, ACTIONS 1057), (anon_sym_SQUOTE, ACTIONS 1057),
     (anon_sym_DQUOTE_DQUOTE_DQUOTE, ACTIONS 1055),
     (anon_sym_SQUOTE_SQUOTE_SQUOTE, ACTIONS 1055), (anon_sym_r_DQUOTE, ACTIONS 1057),
     (anon_sym_r_SQUOTE, ACTIONS 1057), (anon_sym_r_DQUOTE_DQUOTE_DQUOTE, ACTIONS 1055),
     (anon_sym_r_SQUOTE_SQUOTE_SQUOTE, ACTIONS 1055), (anon_sym_LBRACE, ACTIONS 1055),
     (anon_sym_RBRACE, ACTIONS 1055), (anon_sym_LBRACK, ACTIONS 1055),
     (anon_sym_null, ACTIONS 1057), (anon_sym_LPAREN, ACTIONS 1055),
     (anon_sym_throw, ACTIONS 1057), (anon_sym_LT, ACTIONS 1055),
     (sym_increment_operator, ACTIONS 1055), (sym_minus_operator, ACTIONS 1057),
     (anon_sym_BANG, ACTIONS 1055), (anon_sym_TILDE, ACTIONS 1055),
     (anon_sym_await, ACTIONS 1057), (anon_sym_switch, ACTIONS 1057),
     (anon_sym_default, ACTIONS 1057), (anon_sym_do, ACTIONS 1057),
     (anon_sym_while, ACTIONS 1057), (anon_sym_continue, ACTIONS 1057),
     (anon_sym_yield, ACTIONS 1057), (anon_sym_return, ACTIONS 1057),
     (anon_sym_try, ACTIONS 1057), (anon_sym_if, ACTIONS 1057), (anon_sym_case, ACTIONS 1057),
     (anon_sym_else, ACTIONS 1057), (anon_sym_for, ACTIONS 1057), (anon_sym_AT, ACTIONS 1055),
     (anon_sym_enum, ACTIONS 1057), (anon_sym_final, ACTIONS 1057),
     (anon_sym_inline, ACTIONS 1057), (anon_sym_class, ACTIONS 1057),
     (anon_sym_extension, ACTIONS 1057), (sym_void_type, ACTIONS 1057),
     (anon_sym_var, ACTIONS 1057), (sym_break_builtin, ACTIONS 1057),
     (sym_assert_builtin, ACTIONS 1057), (sym_rethrow_builtin, ACTIONS 1057),
     (anon_sym_covariant, ACTIONS 1057), (anon_sym_factory, ACTIONS 1057),
     (anon_sym_Function, ACTIONS 1057), (anon_sym_get, ACTIONS 1057),
     (anon_sym_interface, ACTIONS 1057), (anon_sym_base, ACTIONS 1057),
     (anon_sym_abstract, ACTIONS 1057), (anon_sym_sealed, ACTIONS 1057),
     (anon_sym_operator, ACTIONS 1057), (anon_sym_mixin, ACTIONS 1057),
     (anon_sym_set, ACTIONS 1057), (anon_sym_static, ACTIONS 1057),
     (anon_sym_typedef, ACTIONS 1057), (anon_sym_new, ACTIONS 1057),
     (sym_const_builtin, ACTIONS 1057), (anon_sym_late, ACTIONS 1057),
     (anon_sym_external, ACTIONS 1057), (anon_sym_this, ACTIONS 1057),
     (anon_sym_super, ACTIONS 1057), (anon_sym_SLASH_SLASH, ACTIONS 3),
     (anon_sym_SLASH_STAR, ACTIONS 5), (anon_sym_SLASH_SLASH_SLASH, ACTIONS 7),
     (sym__block_comment, ACTIONS 9), (sym__documentation_block_comment, ACTIONS 11)]"

lemma row_ok_448: "table_row_ok 448 ts_parse_table_448"
  by (simp add: row_simps ts_parse_table_448_def)

definition ts_parse_table_449 :: table_row where
  "ts_parse_table_449 = [
     (sym_comment, STATE 449), (sym_documentation_comment, STATE 449),
     (ts_builtin_sym_end, ACTIONS 1059), (sym_identifier, ACTIONS 1061),
     (anon_sym_POUND, ACTIONS 1059), (sym_decimal_integer_literal, ACTIONS 1061),
     (sym_hex_integer_literal, ACTIONS 1059), (sym_decimal_floating_point_literal, ACTIONS 1061),
     (anon_sym_true, ACTIONS 1061), (anon_sym_false, ACTIONS 1061),
     (anon_sym_DQUOTE, ACTIONS 1061), (anon_sym_SQUOTE, ACTIONS 1061),
     (anon_sym_DQUOTE_DQUOTE_DQUOTE, ACTIONS 1059),
     (anon_sym_SQUOTE_SQUOTE_SQUOTE, ACTIONS 1059), (anon_sym_r_DQUOTE, ACTIONS 1061),
     (anon_sym_r_SQUOTE, ACTIONS 1061), (anon_sym_r_DQUOTE_DQUOTE_DQUOTE, ACTIONS 1059),
     (anon_sym_r_SQUOTE_SQUOTE_SQUOTE, ACTIONS 1059), (anon_sym_LBRACE, ACTIONS 1059),
     (anon_sym_RBRACE, ACTIONS 1059), (anon_sym_LBRACK, ACTIONS 1059),
     (anon_sym_null, ACTIONS 1061), (anon_sym_LPAREN, ACTIONS 1059),
     (anon_sym_throw, ACTIONS 1061), (anon_sym_LT, ACTIONS 1059),
     (sym_increment_operator, ACTIONS 1059), (sym_minus_operator, ACTIONS 1061),
     (anon_sym_BANG, ACTIONS 1059), (anon_sym_TILDE, ACTIONS 1059),
     (anon_sym_await, ACTIONS 1061), (anon_sym_switch, ACTIONS 1061),
     (anon_sym_default, ACTIONS 1061), (anon_sym_do, ACTIONS 1061),
     (anon_sym_while, ACTIONS 1061), (anon_sym_continue, ACTIONS 1061),
     (anon_sym_yield, ACTIONS 1061), (anon_sym_return, ACTIONS 1061),
     (anon_sym_try, ACTIONS 1061), (anon_sym_if, ACTIONS 1061), (anon_sym_case, ACTIONS 1061),
     (anon_sym_else, ACTIONS 1061), (anon_sym_for, ACTIONS 1061), (anon_sym_AT, ACTIONS 1059),
     (anon_sym_enum, ACTIONS 1061), (anon_sym_final, ACTIONS 1061),
     (anon_sym_inline, ACTIONS 1061), (anon_sym_class, ACTIONS 1061),
     (anon_sym_extension, ACTIONS 1061), (sym_void_type, ACTIONS 1061),
     (anon_sym_var, ACTIONS 1061), (sym_break_builtin, ACTIONS 1061),
     (sym_assert_builtin, ACTIONS 1061), (sym_rethrow_builtin, ACTIONS 1061),
     (anon_sym_covariant, ACTIONS 1061), (anon_sym_factory, ACTIONS 1061),
     (anon_sym_Function, ACTIONS 1061), (anon_sym_get, ACTIONS 1061),
     (anon_sym_interface, ACTIONS 1061), (anon_sym_base, ACTIONS 1061),
     (anon_sym_abstract, ACTIONS 1061), (anon_sym_sealed, ACTIONS 1061),
     (anon_sym_operator, ACTIONS 1061), (anon_sym_mixin, ACTIONS 1061),
     (anon_sym_set, ACTIONS 1061), (anon_sym_static, ACTIONS 1061),
     (anon_sym_typedef, ACTIONS 1061), (anon_sym_new, ACTIONS 1061),
     (sym_const_builtin, ACTIONS 1061), (anon_sym_late, ACTIONS 1061),
     (anon_sym_external, ACTIONS 1061), (anon_sym_this, ACTIONS 1061),
     (anon_sym_super, ACTIONS 1061), (anon_sym_SLASH_SLASH, ACTIONS 3),
     (anon_sym_SLASH_STAR, ACTIONS 5), (anon_sym_SLASH_SLASH_SLASH, ACTIONS 7),
     (sym__block_comment, ACTIONS 9), (sym__documentation_block_comment, ACTIONS 11)]"

lemma row_ok_449: "table_row_ok 449 ts_parse_table_449"
  by (simp add: row_simps ts_parse_table_449_def)

definition ts_parse_table_450 :: table_row where
  "ts_parse_table_450 = [
     (sym__top_level_definition, STATE 1774), (sym_annotation, STATE 1571),
     (sym_part_directive, STATE 1671), (sym_part_of_directive, STATE 1725),
     (sym_enum_declaration, STATE 1769), (sym_type_alias, STATE 1769),
     (sym__class_modifiers, STATE 3195), (sym__mixin_class_modifiers, STATE 3373),
     (sym_class_definition, STATE 1769), (sym_extension_declaration, STATE 1769),
     (sym__metadata, STATE 667), (sym_mixin_declaration, STATE 1769),
     (sym_getter_signature, STATE 2207), (sym_setter_signature, STATE 2207),
     (sym__type, STATE 2433), (sym__type_not_function, STATE 1796),
     (sym__type_not_void_not_function, STATE 1896), (sym_function_type, STATE 1848),
     (aux_sym__function_type_tails, STATE 1605), (sym__function_type_tail, STATE 1704),
     (sym_record_type, STATE 1805), (sym__type_name, STATE 1530),
     (sym_inferred_type, STATE 2737), (sym_function_signature, STATE 2207),
     (sym__function_builtin_identifier, STATE 1463), (sym__get, STATE 2411),
     (sym_interface, STATE 3539), (sym_base, STATE 2767), (sym_abstract, STATE 2228),
     (sym_sealed, STATE 3539), (sym_mixin, STATE 3250), (sym__set, STATE 2377),
     (sym__typedef, STATE 2082), (sym_final_builtin, STATE 1989),
     (sym__late_builtin, STATE 1957), (sym__external_builtin, STATE 1818),
     (sym_comment, STATE 450), (sym_documentation_comment, STATE 450),
     (aux_sym_program_repeat2, STATE 1420), (aux_sym_program_repeat3, STATE 465),
     (aux_sym_program_repeat4, STATE 480), (aux_sym__metadata_repeat1, STATE 1454),
     (ts_builtin_sym_end, ACTIONS 1063), (sym_identifier, ACTIONS 15),
     (anon_sym_LPAREN, ACTIONS 17), (anon_sym_AT, ACTIONS 19), (anon_sym_part, ACTIONS 21),
     (anon_sym_enum, ACTIONS 23), (anon_sym_final, ACTIONS 25), (anon_sym_inline, ACTIONS 27),
     (anon_sym_class, ACTIONS 29), (anon_sym_extension, ACTIONS 31), (sym_void_type, ACTIONS 33),
     (anon_sym_var, ACTIONS 35), (sym_part_of_builtin, ACTIONS 41),
     (anon_sym_Function, ACTIONS 45), (anon_sym_get, ACTIONS 47),
     (anon_sym_interface, ACTIONS 51), (anon_sym_base, ACTIONS 53),
     (anon_sym_abstract, ACTIONS 55), (anon_sym_sealed, ACTIONS 57),
     (anon_sym_mixin, ACTIONS 59), (anon_sym_set, ACTIONS 61), (anon_sym_typedef, ACTIONS 63),
     (sym_const_builtin, ACTIONS 65), (anon_sym_late, ACTIONS 67),
     (anon_sym_external, ACTIONS 69), (anon_sym_SLASH_SLASH, ACTIONS 3),
     (anon_sym_SLASH_STAR, ACTIONS 5), (anon_sym_SLASH_SLASH_SLASH, ACTIONS 7),
     (sym__block_comment, ACTIONS 9), (sym__documentation_block_comment, ACTIONS 11)]"

lemma row_ok_450: "table_row_ok 450 ts_parse_table_450"
  by (simp add: row_simps ts_parse_table_450_def)

definition ts_parse_table_451 :: table_row where
  "ts_parse_table_451 = [
     (sym__top_level_definition, STATE 1774), (sym_annotation, STATE 1571),
     (sym_part_directive, STATE 1671), (sym_part_of_directive, STATE 1725),
     (sym_enum_declaration, STATE 1769), (sym_type_alias, STATE 1769),
     (sym__class_modifiers, STATE 3195), (sym__mixin_class_modifiers, STATE 3373),
     (sym_class_definition, STATE 1769), (sym_extension_declaration, STATE 1769),
     (sym__metadata, STATE 667), (sym_mixin_declaration, STATE 1769),
     (sym_getter_signature, STATE 2207), (sym_setter_signature, STATE 2207),
     (sym__type, STATE 2433), (sym__type_not_function, STATE 1796),
     (sym__type_not_void_not_function, STATE 1896), (sym_function_type, STATE 1848),
     (aux_sym__function_type_tails, STATE 1605), (sym__function_type_tail, STATE 1704),
     (sym_record_type, STATE 1805), (sym__type_name, STATE 1530),
     (sym_inferred_type, STATE 2737), (sym_function_signature, STATE 2207),
     (sym__function_builtin_identifier, STATE 1463), (sym__get, STATE 2411),
     (sym_interface, STATE 3539), (sym_base, STATE 2767), (sym_abstract, STATE 2228),
     (sym_sealed, STATE 3539), (sym_mixin, STATE 3250), (sym__set, STATE 2377),
     (sym__typedef, STATE 2082), (sym_final_builtin, STATE 1989),
     (sym__late_builtin, STATE 1957), (sym__external_builtin, STATE 1818),
     (sym_comment, STATE 451), (sym_documentation_comment, STATE 451),
     (aux_sym_program_repeat2, STATE 1420), (aux_sym_program_repeat3, STATE 468),
     (aux_sym_program_repeat4, STATE 477), (aux_sym__metadata_repeat1, STATE 1454),
     (ts_builtin_sym_end, ACTIONS 1035), (sym_identifier, ACTIONS 15),
     (anon_sym_LPAREN, ACTIONS 17), (anon_sym_AT, ACTIONS 19), (anon_sym_part, ACTIONS 21),
     (anon_sym_enum, ACTIONS 23), (anon_sym_final, ACTIONS 25), (anon_sym_inline, ACTIONS 27),
     (anon_sym_class, ACTIONS 29), (anon_sym_extension, ACTIONS 31), (sym_void_type, ACTIONS 33),
     (anon_sym_var, ACTIONS 35), (sym_part_of_builtin, ACTIONS 41),
     (anon_sym_Function, ACTIONS 45), (anon_sym_get, ACTIONS 47),
     (anon_sym_interface, ACTIONS 51), (anon_sym_base, ACTIONS 53),
     (anon_sym_abstract, ACTIONS 55), (anon_sym_sealed, ACTIONS 57),
     (anon_sym_mixin, ACTIONS 59), (anon_sym_set, ACTIONS 61), (anon_sym_typedef, ACTIONS 63),
     (sym_const_builtin, ACTIONS 65), (anon_sym_late, ACTIONS 67),
     (anon_sym_external, ACTIONS 69), (anon_sym_SLASH_SLASH, ACTIONS 3),
     (anon_sym_SLASH_STAR, ACTIONS 5), (anon_sym_SLASH_SLASH_SLASH, ACTIONS 7),
     (sym__block_comment, ACTIONS 9), (sym__documentation_block_comment, ACTIONS 11)]"

lemma row_ok_451: "table_row_ok 451 ts_parse_table_451"
  by (simp add: row_simps ts_parse_table_451_def)

definition ts_parse_table_452 :: table_row where
  "ts_parse_table_452 = [
     (sym__top_level_definition, STATE 1774), (sym_annotation, STATE 1571),
     (sym_part_directive, STATE 1671), (sym_part_of_directive, STATE 1725),
     (sym_enum_declaration, STATE 1769), (sym_type_alias, STATE 1769),
     (sym__class_modifiers, STATE 3195), (sym__mixin_class_modifiers, STATE 3373),
     (sym_class_definition, STATE 1769), (sym_extension_declaration, STATE 1769),
     (sym__metadata, STATE 667), (sym_mixin_declaration, STATE 1769),
     (sym_getter_signature, STATE 2207), (sym_setter_signature, STATE 2207),
     (sym__type, STATE 2433), (sym__type_not_function, STATE 1796),
     (sym__type_not_void_not_function, STATE 1896), (sym_function_type, STATE 1848),
     (aux_sym__function_type_tails, STATE 1605), (sym__function_type_tail, STATE 1704),
     (sym_record_type, STATE 1805), (sym__type_name, STATE 1530),
     (sym_inferred_type, STATE 2737), (sym_function_signature, STATE 2207),
     (sym__function_builtin_identifier, STATE 1463), (sym__get, STATE 2411),
     (sym_interface, STATE 3539), (sym_base, STATE 2767), (sym_abstract, STATE 2228),
     (sym_sealed, STATE 3539), (sym_mixin, STATE 3250), (sym__set, STATE 2377),
     (sym__typedef, STATE 2082), (sym_final_builtin, STATE 1989),
     (sym__late_builtin, STATE 1957), (sym__external_builtin, STATE 1818),
     (sym_comment, STATE 452), (sym_documentation_comment, STATE 452),
     (aux_sym_program_repeat2, STATE 1420), (aux_sym_program_repeat3, STATE 463),
     (aux_sym_program_repeat4, STATE 478), (aux_sym__metadata_repeat1, STATE 1454),
     (ts_builtin_sym_end, ACTIONS 1037), (sym_identifier, ACTIONS 15),
     (anon_sym_LPAREN, ACTIONS 17), (anon_sym_AT, ACTIONS 19), (anon_sym_part, ACTIONS 21),
     (anon_sym_enum, ACTIONS 23), (anon_sym_final, ACTIONS 25), (anon_sym_inline, ACTIONS 27),
     (anon_sym_class, ACTIONS 29), (anon_sym_extension, ACTIONS 31), (sym_void_type, ACTIONS 33),
     (anon_sym_var, ACTIONS 35), (sym_part_of_builtin, ACTIONS 41),
     (anon_sym_Function, ACTIONS 45), (anon_sym_get, ACTIONS 47),
     (anon_sym_interface, ACTIONS 51), (anon_sym_base, ACTIONS 53),
     (anon_sym_abstract, ACTIONS 55), (anon_sym_sealed, ACTIONS 57),
     (anon_sym_mixin, ACTIONS 59), (anon_sym_set, ACTIONS 61), (anon_sym_typedef, ACTIONS 63),
     (sym_const_builtin, ACTIONS 65), (anon_sym_late, ACTIONS 67),
     (anon_sym_external, ACTIONS 69), (anon_sym_SLASH_SLASH, ACTIONS 3),
     (anon_sym_SLASH_STAR, ACTIONS 5), (anon_sym_SLASH_SLASH_SLASH, ACTIONS 7),
     (sym__block_comment, ACTIONS 9), (sym__documentation_block_comment, ACTIONS 11)]"

lemma row_ok_452: "table_row_ok 452 ts_parse_table_452"
  by (simp add: row_simps ts_parse_table_452_def)

definition ts_parse_table_453 :: table_row where
  "ts_parse_table_453 = [
     (sym__assignment_operator, STATE 298), (sym_arguments, STATE 583),
     (sym__cascade_subsection, STATE 580), (sym__cascade_assignment_section, STATE 980),
     (sym_index_selector, STATE 581), (sym_argument_part, STATE 579),
     (sym_unconditional_assignable_selector, STATE 602),
     (sym_conditional_assignable_selector, STATE 602), (sym__assignable_selector, STATE 499),
     (sym_type_arguments, STATE 3083), (sym_comment, STATE 453),
     (sym_documentation_comment, STATE 453), (aux_sym_cascade_section_repeat1, STATE 496),
     (aux_sym_cascade_section_repeat2, STATE 472), (anon_sym_RBRACE, ACTIONS 1065),
     (anon_sym_LBRACK, ACTIONS 1065), (anon_sym_COMMA, ACTIONS 1065),
     (anon_sym_RBRACK, ACTIONS 1065), (anon_sym_COLON, ACTIONS 1065),
     (anon_sym_LPAREN, ACTIONS 1065), (anon_sym_RPAREN, ACTIONS 1065),
     (anon_sym_EQ, ACTIONS 1067), (anon_sym_PLUS_EQ, ACTIONS 1069),
     (anon_sym_DASH_EQ, ACTIONS 1069), (anon_sym_STAR_EQ, ACTIONS 1069),
     (anon_sym_SLASH_EQ, ACTIONS 1069), (anon_sym_PERCENT_EQ, ACTIONS 1069),
     (anon_sym_TILDE_SLASH_EQ, ACTIONS 1069), (anon_sym_LT_LT_EQ, ACTIONS 1069),
     (anon_sym_GT_GT_EQ, ACTIONS 1069), (anon_sym_GT_GT_GT_EQ, ACTIONS 1069),
     (anon_sym_AMP_EQ, ACTIONS 1069), (anon_sym_CARET_EQ, ACTIONS 1069),
     (anon_sym_PIPE_EQ, ACTIONS 1069), (anon_sym_QMARK_QMARK_EQ, ACTIONS 1069),
     (anon_sym_QMARK_QMARK, ACTIONS 1071), (anon_sym_QMARK, ACTIONS 1071),
     (sym_equality_operator, ACTIONS 1065), (anon_sym_LT, ACTIONS 1071),
     (anon_sym_GT, ACTIONS 1071), (anon_sym_LT_EQ, ACTIONS 1065), (anon_sym_GT_EQ, ACTIONS 1065),
     (anon_sym_PIPE, ACTIONS 1071), (anon_sym_CARET, ACTIONS 1071), (anon_sym_AMP, ACTIONS 1071),
     (anon_sym_LT_LT, ACTIONS 1071), (anon_sym_GT_GT, ACTIONS 1071),
     (anon_sym_GT_GT_GT, ACTIONS 1071), (sym__additive_operator, ACTIONS 1071),
     (anon_sym_STAR, ACTIONS 1071), (anon_sym_SLASH, ACTIONS 1071),
     (anon_sym_PERCENT, ACTIONS 1071), (anon_sym_TILDE_SLASH, ACTIONS 1071),
     (anon_sym_BANG, ACTIONS 1071), (anon_sym_is, ACTIONS 1065), (anon_sym_as, ACTIONS 1065),
     (anon_sym_DOT, ACTIONS 1071), (anon_sym_QMARK_DOT, ACTIONS 1071),
     (anon_sym_DOT_DOT, ACTIONS 1065), (anon_sym_QMARK_DOT_DOT, ACTIONS 1065),
     (anon_sym_SEMI, ACTIONS 1065), (anon_sym_EQ_GT, ACTIONS 1065),
     (anon_sym_when, ACTIONS 1065), (anon_sym_case, ACTIONS 1065), (anon_sym_else, ACTIONS 1065),
     (anon_sym_AMP_AMP, ACTIONS 1065), (anon_sym_PIPE_PIPE, ACTIONS 1065),
     (anon_sym_SLASH_SLASH, ACTIONS 3), (anon_sym_SLASH_STAR, ACTIONS 5),
     (anon_sym_SLASH_SLASH_SLASH, ACTIONS 7), (sym__block_comment, ACTIONS 9),
     (sym__documentation_block_comment, ACTIONS 11)]"

lemma row_ok_453: "table_row_ok 453 ts_parse_table_453"
  by (simp add: row_simps ts_parse_table_453_def)

definition ts_parse_table_454 :: table_row where
  "ts_parse_table_454 = [
     (sym__top_level_definition, STATE 1774), (sym_annotation, STATE 1571),
     (sym_part_directive, STATE 1671), (sym_part_of_directive, STATE 1725),
     (sym_enum_declaration, STATE 1769), (sym_type_alias, STATE 1769),
     (sym__class_modifiers, STATE 3195), (sym__mixin_class_modifiers, STATE 3373),
     (sym_class_definition, STATE 1769), (sym_extension_declaration, STATE 1769),
     (sym__metadata, STATE 667), (sym_mixin_declaration, STATE 1769),
     (sym_getter_signature, STATE 2207), (sym_setter_signature, STATE 2207),
     (sym__type, STATE 2433), (sym__type_not_function, STATE 1796),
     (sym__type_not_void_not_function, STATE 1896), (sym_function_type, STATE 1848),
     (aux_sym__function_type_tails, STATE 1605), (sym__function_type_tail, STATE 1704),
     (sym_record_type, STATE 1805), (sym__type_name, STATE 1530),
     (sym_inferred_type, STATE 2737), (sym_function_signature, STATE 2207),
     (sym__function_builtin_identifier, STATE 1463), (sym__get, STATE 2411),
     (sym_interface, STATE 3539), (sym_base, STATE 2767), (sym_abstract, STATE 2228),
     (sym_sealed, STATE 3539), (sym_mixin, STATE 3250), (sym__set, STATE 2377),
     (sym__typedef, STATE 2082), (sym_final_builtin, STATE 1989),
     (sym__late_builtin, STATE 1957), (sym__external_builtin, STATE 1818),
     (sym_comment, STATE 454), (sym_documentation_comment, STATE 454),
     (aux_sym_program_repeat2, STATE 1420), (aux_sym_program_repeat3, STATE 462),
     (aux_sym_program_repeat4, STATE 476), (aux_sym__metadata_repeat1, STATE 1454),
     (ts_builtin_sym_end, ACTIONS 1033), (sym_identifier, ACTIONS 15),
     (anon_sym_LPAREN, ACTIONS 17), (anon_sym_AT, ACTIONS 19), (anon_sym_part, ACTIONS 21),
     (anon_sym_enum, ACTIONS 23), (anon_sym_final, ACTIONS 25), (anon_sym_inline, ACTIONS 27),
     (anon_sym_class, ACTIONS 29), (anon_sym_extension, ACTIONS 31), (sym_void_type, ACTIONS 33),
     (anon_sym_var, ACTIONS 35), (sym_part_of_builtin, ACTIONS 41),
     (anon_sym_Function, ACTIONS 45), (anon_sym_get, ACTIONS 47),
     (anon_sym_interface, ACTIONS 51), (anon_sym_base, ACTIONS 53),
     (anon_sym_abstract, ACTIONS 55), (anon_sym_sealed, ACTIONS 57),
     (anon_sym_mixin, ACTIONS 59), (anon_sym_set, ACTIONS 61), (anon_sym_typedef, ACTIONS 63),
     (sym_const_builtin, ACTIONS 65), (anon_sym_late, ACTIONS 67),
     (anon_sym_external, ACTIONS 69), (anon_sym_SLASH_SLASH, ACTIONS 3),
     (anon_sym_SLASH_STAR, ACTIONS 5), (anon_sym_SLASH_SLASH_SLASH, ACTIONS 7),
     (sym__block_comment, ACTIONS 9), (sym__documentation_block_comment, ACTIONS 11)]"

lemma row_ok_454: "table_row_ok 454 ts_parse_table_454"
  by (simp add: row_simps ts_parse_table_454_def)

definition ts_parse_table_455 :: table_row where
  "ts_parse_table_455 = [
     (sym__assignment_operator, STATE 298), (sym_arguments, STATE 583),
     (sym__cascade_subsection, STATE 580), (sym__cascade_assignment_section, STATE 999),
     (sym_index_selector, STATE 581), (sym_argument_part, STATE 579),
     (sym_unconditional_assignable_selector, STATE 602),
     (sym_conditional_assignable_selector, STATE 602), (sym__assignable_selector, STATE 499),
     (sym_type_arguments, STATE 3083), (sym_comment, STATE 455),
     (sym_documentation_comment, STATE 455), (aux_sym_cascade_section_repeat1, STATE 453),
     (aux_sym_cascade_section_repeat2, STATE 471), (anon_sym_RBRACE, ACTIONS 1073),
     (anon_sym_LBRACK, ACTIONS 1073), (anon_sym_COMMA, ACTIONS 1073),
     (anon_sym_RBRACK, ACTIONS 1073), (anon_sym_COLON, ACTIONS 1073),
     (anon_sym_LPAREN, ACTIONS 1073), (anon_sym_RPAREN, ACTIONS 1073),
     (anon_sym_EQ, ACTIONS 1067), (anon_sym_PLUS_EQ, ACTIONS 1069),
     (anon_sym_DASH_EQ, ACTIONS 1069), (anon_sym_STAR_EQ, ACTIONS 1069),
     (anon_sym_SLASH_EQ, ACTIONS 1069), (anon_sym_PERCENT_EQ, ACTIONS 1069),
     (anon_sym_TILDE_SLASH_EQ, ACTIONS 1069), (anon_sym_LT_LT_EQ, ACTIONS 1069),
     (anon_sym_GT_GT_EQ, ACTIONS 1069), (anon_sym_GT_GT_GT_EQ, ACTIONS 1069),
     (anon_sym_AMP_EQ, ACTIONS 1069), (anon_sym_CARET_EQ, ACTIONS 1069),
     (anon_sym_PIPE_EQ, ACTIONS 1069), (anon_sym_QMARK_QMARK_EQ, ACTIONS 1069),
     (anon_sym_QMARK_QMARK, ACTIONS 1075), (anon_sym_QMARK, ACTIONS 1075),
     (sym_equality_operator, ACTIONS 1073), (anon_sym_LT, ACTIONS 1075),
     (anon_sym_GT, ACTIONS 1075), (anon_sym_LT_EQ, ACTIONS 1073), (anon_sym_GT_EQ, ACTIONS 1073),
     (anon_sym_PIPE, ACTIONS 1075), (anon_sym_CARET, ACTIONS 1075), (anon_sym_AMP, ACTIONS 1075),
     (anon_sym_LT_LT, ACTIONS 1075), (anon_sym_GT_GT, ACTIONS 1075),
     (anon_sym_GT_GT_GT, ACTIONS 1075), (sym__additive_operator, ACTIONS 1075),
     (anon_sym_STAR, ACTIONS 1075), (anon_sym_SLASH, ACTIONS 1075),
     (anon_sym_PERCENT, ACTIONS 1075), (anon_sym_TILDE_SLASH, ACTIONS 1075),
     (anon_sym_BANG, ACTIONS 1075), (anon_sym_is, ACTIONS 1073), (anon_sym_as, ACTIONS 1073),
     (anon_sym_DOT, ACTIONS 1075), (anon_sym_QMARK_DOT, ACTIONS 1075),
     (anon_sym_DOT_DOT, ACTIONS 1073), (anon_sym_QMARK_DOT_DOT, ACTIONS 1073),
     (anon_sym_SEMI, ACTIONS 1073), (anon_sym_EQ_GT, ACTIONS 1073),
     (anon_sym_when, ACTIONS 1073), (anon_sym_case, ACTIONS 1073), (anon_sym_else, ACTIONS 1073),
     (anon_sym_AMP_AMP, ACTIONS 1073), (anon_sym_PIPE_PIPE, ACTIONS 1073),
     (anon_sym_SLASH_SLASH, ACTIONS 3), (anon_sym_SLASH_STAR, ACTIONS 5),
     (anon_sym_SLASH_SLASH_SLASH, ACTIONS 7), (sym__block_comment, ACTIONS 9),
     (sym__documentation_block_comment, ACTIONS 11)]"

lemma row_ok_455: "table_row_ok 455 ts_parse_table_455"
  by (simp add: row_simps ts_parse_table_455_def)

definition ts_parse_table_456 :: table_row where
  "ts_parse_table_456 = [
     (sym__bool_literal, STATE 2364), (sym__numeric_literal, STATE 2364),
     (sym__literal, STATE 2369), (sym_symbol_literal, STATE 2364), (sym_true, STATE 2371),
     (sym_false, STATE 2371), (sym_string_literal, STATE 2364),
     (sym__string_literal_double_quotes, STATE 1994),
     (sym__string_literal_single_quotes, STATE 1994),
     (sym__string_literal_double_quotes_multiple, STATE 1994),
     (sym__string_literal_single_quotes_multiple, STATE 1994),
     (sym__raw_string_literal_double_quotes, STATE 1994),
     (sym__raw_string_literal_single_quotes, STATE 1994),
     (sym__raw_string_literal_double_quotes_multiple, STATE 1994),
     (sym__raw_string_literal_single_quotes_multiple, STATE 1994),
     (sym_list_literal, STATE 2364), (sym_set_or_map_literal, STATE 2364),
     (sym_null_literal, STATE 2364), (sym_record_literal, STATE 2364),
     (sym__record_literal_no_const, STATE 2388), (sym_assignable_expression, STATE 1315),
     (sym_function_expression, STATE 2369), (sym_new_expression, STATE 2369),
     (sym_const_object_expression, STATE 2369), (sym__primary, STATE 1920),
     (sym_parenthesized_expression, STATE 2369), (sym_constructor_invocation, STATE 1920),
     (sym_constructor_tearoff, STATE 2369), (sym_type_arguments, STATE 3115),
     (sym_switch_expression, STATE 2369), (sym_type_parameters, STATE 2932),
     (sym__type_name, STATE 2699), (sym__formal_parameter_part, STATE 2426),
     (sym_formal_parameter_list, STATE 2020), (sym__strict_formal_parameter_list, STATE 2016),
     (sym__new_builtin, STATE 2098), (sym_this, STATE 2369), (sym_super, STATE 2642),
     (sym_comment, STATE 456), (sym_documentation_comment, STATE 456),
     (aux_sym_string_literal_repeat1, STATE 1720), (sym_identifier, ACTIONS 1077),
     (anon_sym_POUND, ACTIONS 1079), (sym_decimal_integer_literal, ACTIONS 1081),
     (sym_hex_integer_literal, ACTIONS 1083), (sym_decimal_floating_point_literal, ACTIONS 1081),
     (anon_sym_true, ACTIONS 1085), (anon_sym_false, ACTIONS 1087),
     (anon_sym_DQUOTE, ACTIONS 1089), (anon_sym_SQUOTE, ACTIONS 1091),
     (anon_sym_DQUOTE_DQUOTE_DQUOTE, ACTIONS 1093),
     (anon_sym_SQUOTE_SQUOTE_SQUOTE, ACTIONS 1095), (anon_sym_r_DQUOTE, ACTIONS 1097),
     (anon_sym_r_SQUOTE, ACTIONS 1099), (anon_sym_r_DQUOTE_DQUOTE_DQUOTE, ACTIONS 1101),
     (anon_sym_r_SQUOTE_SQUOTE_SQUOTE, ACTIONS 1103), (anon_sym_LBRACE, ACTIONS 1105),
     (anon_sym_LBRACK, ACTIONS 1107), (anon_sym_null, ACTIONS 1109),
     (anon_sym_LPAREN, ACTIONS 1111), (anon_sym_LT, ACTIONS 111),
     (anon_sym_switch, ACTIONS 1113), (anon_sym_new, ACTIONS 155),
     (sym_const_builtin, ACTIONS 1115), (anon_sym_this, ACTIONS 1117),
     (anon_sym_super, ACTIONS 161), (anon_sym_SLASH_SLASH, ACTIONS 3),
     (anon_sym_SLASH_STAR, ACTIONS 5), (anon_sym_SLASH_SLASH_SLASH, ACTIONS 7),
     (sym__block_comment, ACTIONS 9), (sym__documentation_block_comment, ACTIONS 11)]"

lemma row_ok_456: "table_row_ok 456 ts_parse_table_456"
  by (simp add: row_simps ts_parse_table_456_def)

definition ts_parse_table_457 :: table_row where
  "ts_parse_table_457 = [
     (sym__bool_literal, STATE 2364), (sym__numeric_literal, STATE 2364),
     (sym__literal, STATE 2369), (sym_symbol_literal, STATE 2364), (sym_true, STATE 2371),
     (sym_false, STATE 2371), (sym_string_literal, STATE 2364),
     (sym__string_literal_double_quotes, STATE 1994),
     (sym__string_literal_single_quotes, STATE 1994),
     (sym__string_literal_double_quotes_multiple, STATE 1994),
     (sym__string_literal_single_quotes_multiple, STATE 1994),
     (sym__raw_string_literal_double_quotes, STATE 1994),
     (sym__raw_string_literal_single_quotes, STATE 1994),
     (sym__raw_string_literal_double_quotes_multiple, STATE 1994),
     (sym__raw_string_literal_single_quotes_multiple, STATE 1994),
     (sym_list_literal, STATE 2364), (sym_set_or_map_literal, STATE 2364),
     (sym_null_literal, STATE 2364), (sym_record_literal, STATE 2364),
     (sym__record_literal_no_const, STATE 2388), (sym_assignable_expression, STATE 1487),
     (sym_function_expression, STATE 2369), (sym_new_expression, STATE 2369),
     (sym_const_object_expression, STATE 2369), (sym__primary, STATE 1925),
     (sym_parenthesized_expression, STATE 2369), (sym_constructor_invocation, STATE 1925),
     (sym_constructor_tearoff, STATE 2369), (sym_type_arguments, STATE 3115),
     (sym_switch_expression, STATE 2369), (sym_type_parameters, STATE 2932),
     (sym__type_name, STATE 2699), (sym__formal_parameter_part, STATE 2426),
     (sym_formal_parameter_list, STATE 2020), (sym__strict_formal_parameter_list, STATE 2016),
     (sym__new_builtin, STATE 2098), (sym_this, STATE 2369), (sym_super, STATE 2626),
     (sym_comment, STATE 457), (sym_documentation_comment, STATE 457),
     (aux_sym_string_literal_repeat1, STATE 1720), (sym_identifier, ACTIONS 1119),
     (anon_sym_POUND, ACTIONS 1079), (sym_decimal_integer_literal, ACTIONS 1081),
     (sym_hex_integer_literal, ACTIONS 1083), (sym_decimal_floating_point_literal, ACTIONS 1081),
     (anon_sym_true, ACTIONS 1085), (anon_sym_false, ACTIONS 1087),
     (anon_sym_DQUOTE, ACTIONS 1089), (anon_sym_SQUOTE, ACTIONS 1091),
     (anon_sym_DQUOTE_DQUOTE_DQUOTE, ACTIONS 1093),
     (anon_sym_SQUOTE_SQUOTE_SQUOTE, ACTIONS 1095), (anon_sym_r_DQUOTE, ACTIONS 1097),
     (anon_sym_r_SQUOTE, ACTIONS 1099), (anon_sym_r_DQUOTE_DQUOTE_DQUOTE, ACTIONS 1101),
     (anon_sym_r_SQUOTE_SQUOTE_SQUOTE, ACTIONS 1103), (anon_sym_LBRACE, ACTIONS 1105),
     (anon_sym_LBRACK, ACTIONS 1107), (anon_sym_null, ACTIONS 1109),
     (anon_sym_LPAREN, ACTIONS 1111), (anon_sym_LT, ACTIONS 111),
     (anon_sym_switch, ACTIONS 1113), (anon_sym_new, ACTIONS 155),
     (sym_const_builtin, ACTIONS 1115), (anon_sym_this, ACTIONS 1117),
     (anon_sym_super, ACTIONS 161), (anon_sym_SLASH_SLASH, ACTIONS 3),
     (anon_sym_SLASH_STAR, ACTIONS 5), (anon_sym_SLASH_SLASH_SLASH, ACTIONS 7),
     (sym__block_comment, ACTIONS 9), (sym__documentation_block_comment, ACTIONS 11)]"

lemma row_ok_457: "table_row_ok 457 ts_parse_table_457"
  by (simp add: row_simps ts_parse_table_457_def)

definition ts_parse_table_458 :: table_row where
  "ts_parse_table_458 = [
     (sym__bool_literal, STATE 2364), (sym__numeric_literal, STATE 2364),
     (sym__literal, STATE 2369), (sym_symbol_literal, STATE 2364), (sym_true, STATE 2371),
     (sym_false, STATE 2371), (sym_string_literal, STATE 2364),
     (sym__string_literal_double_quotes, STATE 1994),
     (sym__string_literal_single_quotes, STATE 1994),
     (sym__string_literal_double_quotes_multiple, STATE 1994),
     (sym__string_literal_single_quotes_multiple, STATE 1994),
     (sym__raw_string_literal_double_quotes, STATE 1994),
     (sym__raw_string_literal_single_quotes, STATE 1994),
     (sym__raw_string_literal_double_quotes_multiple, STATE 1994),
     (sym__raw_string_literal_single_quotes_multiple, STATE 1994),
     (sym_list_literal, STATE 2364), (sym_set_or_map_literal, STATE 2364),
     (sym_null_literal, STATE 2364), (sym_record_literal, STATE 2364),
     (sym__record_literal_no_const, STATE 2388), (sym_assignable_expression, STATE 969),
     (sym_function_expression, STATE 2369), (sym_new_expression, STATE 2369),
     (sym_const_object_expression, STATE 2369), (sym__primary, STATE 1918),
     (sym_parenthesized_expression, STATE 2369), (sym_constructor_invocation, STATE 1918),
     (sym_constructor_tearoff, STATE 2369), (sym_type_arguments, STATE 3115),
     (sym_switch_expression, STATE 2369), (sym_type_parameters, STATE 2932),
     (sym__type_name, STATE 2699), (sym__formal_parameter_part, STATE 2426),
     (sym_formal_parameter_list, STATE 2020), (sym__strict_formal_parameter_list, STATE 2016),
     (sym__new_builtin, STATE 2098), (sym_this, STATE 2369), (sym_super, STATE 2648),
     (sym_comment, STATE 458), (sym_documentation_comment, STATE 458),
     (aux_sym_string_literal_repeat1, STATE 1720), (sym_identifier, ACTIONS 1121),
     (anon_sym_POUND, ACTIONS 1079), (sym_decimal_integer_literal, ACTIONS 1081),
     (sym_hex_integer_literal, ACTIONS 1083), (sym_decimal_floating_point_literal, ACTIONS 1081),
     (anon_sym_true, ACTIONS 1085), (anon_sym_false, ACTIONS 1087),
     (anon_sym_DQUOTE, ACTIONS 1089), (anon_sym_SQUOTE, ACTIONS 1091),
     (anon_sym_DQUOTE_DQUOTE_DQUOTE, ACTIONS 1093),
     (anon_sym_SQUOTE_SQUOTE_SQUOTE, ACTIONS 1095), (anon_sym_r_DQUOTE, ACTIONS 1097),
     (anon_sym_r_SQUOTE, ACTIONS 1099), (anon_sym_r_DQUOTE_DQUOTE_DQUOTE, ACTIONS 1101),
     (anon_sym_r_SQUOTE_SQUOTE_SQUOTE, ACTIONS 1103), (anon_sym_LBRACE, ACTIONS 1105),
     (anon_sym_LBRACK, ACTIONS 1107), (anon_sym_null, ACTIONS 1109),
     (anon_sym_LPAREN, ACTIONS 1111), (anon_sym_LT, ACTIONS 111),
     (anon_sym_switch, ACTIONS 1113), (anon_sym_new, ACTIONS 155),
     (sym_const_builtin, ACTIONS 1115), (anon_sym_this, ACTIONS 1117),
     (anon_sym_super, ACTIONS 161), (anon_sym_SLASH_SLASH, ACTIONS 3),
     (anon_sym_SLASH_STAR, ACTIONS 5), (anon_sym_SLASH_SLASH_SLASH, ACTIONS 7),
     (sym__block_comment, ACTIONS 9), (sym__documentation_block_comment, ACTIONS 11)]"

lemma row_ok_458: "table_row_ok 458 ts_parse_table_458"
  by (simp add: row_simps ts_parse_table_458_def)

definition ts_parse_table_459 :: table_row where
  "ts_parse_table_459 = [
     (sym__bool_literal, STATE 2364), (sym__numeric_literal, STATE 2364),
     (sym__literal, STATE 2369), (sym_symbol_literal, STATE 2364), (sym_true, STATE 2371),
     (sym_false, STATE 2371), (sym_string_literal, STATE 2364),
     (sym__string_literal_double_quotes, STATE 1994),
     (sym__string_literal_single_quotes, STATE 1994),
     (sym__string_literal_double_quotes_multiple, STATE 1994),
     (sym__string_literal_single_quotes_multiple, STATE 1994),
     (sym__raw_string_literal_double_quotes, STATE 1994),
     (sym__raw_string_literal_single_quotes, STATE 1994),
     (sym__raw_string_literal_double_quotes_multiple, STATE 1994),
     (sym__raw_string_literal_single_quotes_multiple, STATE 1994),
     (sym_list_literal, STATE 2364), (sym_set_or_map_literal, STATE 2364),
     (sym_null_literal, STATE 2364), (sym_record_literal, STATE 2364),
     (sym__record_literal_no_const, STATE 2388), (sym_assignable_expression, STATE 1154),
     (sym_function_expression, STATE 2369), (sym_new_expression, STATE 2369),
     (sym_const_object_expression, STATE 2369), (sym__primary, STATE 1926),
     (sym_parenthesized_expression, STATE 2369), (sym_constructor_invocation, STATE 1926),
     (sym_constructor_tearoff, STATE 2369), (sym_type_arguments, STATE 3115),
     (sym_switch_expression, STATE 2369), (sym_type_parameters, STATE 2932),
     (sym__type_name, STATE 2699), (sym__formal_parameter_part, STATE 2426),
     (sym_formal_parameter_list, STATE 2020), (sym__strict_formal_parameter_list, STATE 2016),
     (sym__new_builtin, STATE 2098), (sym_this, STATE 2369), (sym_super, STATE 2668),
     (sym_comment, STATE 459), (sym_documentation_comment, STATE 459),
     (aux_sym_string_literal_repeat1, STATE 1720), (sym_identifier, ACTIONS 1123),
     (anon_sym_POUND, ACTIONS 1079), (sym_decimal_integer_literal, ACTIONS 1081),
     (sym_hex_integer_literal, ACTIONS 1083), (sym_decimal_floating_point_literal, ACTIONS 1081),
     (anon_sym_true, ACTIONS 1085), (anon_sym_false, ACTIONS 1087),
     (anon_sym_DQUOTE, ACTIONS 1089), (anon_sym_SQUOTE, ACTIONS 1091),
     (anon_sym_DQUOTE_DQUOTE_DQUOTE, ACTIONS 1093),
     (anon_sym_SQUOTE_SQUOTE_SQUOTE, ACTIONS 1095), (anon_sym_r_DQUOTE, ACTIONS 1097),
     (anon_sym_r_SQUOTE, ACTIONS 1099), (anon_sym_r_DQUOTE_DQUOTE_DQUOTE, ACTIONS 1101),
     (anon_sym_r_SQUOTE_SQUOTE_SQUOTE, ACTIONS 1103), (anon_sym_LBRACE, ACTIONS 1105),
     (anon_sym_LBRACK, ACTIONS 1107), (anon_sym_null, ACTIONS 1109),
     (anon_sym_LPAREN, ACTIONS 1111), (anon_sym_LT, ACTIONS 111),
     (anon_sym_switch, ACTIONS 1113), (anon_sym_new, ACTIONS 155),
     (sym_const_builtin, ACTIONS 1115), (anon_sym_this, ACTIONS 1117),
     (anon_sym_super, ACTIONS 161), (anon_sym_SLASH_SLASH, ACTIONS 3),
     (anon_sym_SLASH_STAR, ACTIONS 5), (anon_sym_SLASH_SLASH_SLASH, ACTIONS 7),
     (sym__block_comment, ACTIONS 9), (sym__documentation_block_comment, ACTIONS 11)]"

lemma row_ok_459: "table_row_ok 459 ts_parse_table_459"
  by (simp add: row_simps ts_parse_table_459_def)

definition ts_parse_table_460 :: table_row where
  "ts_parse_table_460 = [
     (sym__bool_literal, STATE 2364), (sym__numeric_literal, STATE 2364),
     (sym__literal, STATE 2369), (sym_symbol_literal, STATE 2364), (sym_true, STATE 2371),
     (sym_false, STATE 2371), (sym_string_literal, STATE 2364),
     (sym__string_literal_double_quotes, STATE 1994),
     (sym__string_literal_single_quotes, STATE 1994),
     (sym__string_literal_double_quotes_multiple, STATE 1994),
     (sym__string_literal_single_quotes_multiple, STATE 1994),
     (sym__raw_string_literal_double_quotes, STATE 1994),
     (sym__raw_string_literal_single_quotes, STATE 1994),
     (sym__raw_string_literal_double_quotes_multiple, STATE 1994),
     (sym__raw_string_literal_single_quotes_multiple, STATE 1994),
     (sym_list_literal, STATE 2364), (sym_set_or_map_literal, STATE 2364),
     (sym_null_literal, STATE 2364), (sym_record_literal, STATE 2364),
     (sym__record_literal_no_const, STATE 2388), (sym_assignable_expression, STATE 1382),
     (sym_function_expression, STATE 2369), (sym_new_expression, STATE 2369),
     (sym_const_object_expression, STATE 2369), (sym__primary, STATE 1929),
     (sym_parenthesized_expression, STATE 2369), (sym_constructor_invocation, STATE 1929),
     (sym_constructor_tearoff, STATE 2369), (sym_type_arguments, STATE 3115),
     (sym_switch_expression, STATE 2369), (sym_type_parameters, STATE 2932),
     (sym__type_name, STATE 2699), (sym__formal_parameter_part, STATE 2426),
     (sym_formal_parameter_list, STATE 2020), (sym__strict_formal_parameter_list, STATE 2016),
     (sym__new_builtin, STATE 2098), (sym_this, STATE 2369), (sym_super, STATE 2656),
     (sym_comment, STATE 460), (sym_documentation_comment, STATE 460),
     (aux_sym_string_literal_repeat1, STATE 1720), (sym_identifier, ACTIONS 1125),
     (anon_sym_POUND, ACTIONS 1079), (sym_decimal_integer_literal, ACTIONS 1081),
     (sym_hex_integer_literal, ACTIONS 1083), (sym_decimal_floating_point_literal, ACTIONS 1081),
     (anon_sym_true, ACTIONS 1085), (anon_sym_false, ACTIONS 1087),
     (anon_sym_DQUOTE, ACTIONS 1089), (anon_sym_SQUOTE, ACTIONS 1091),
     (anon_sym_DQUOTE_DQUOTE_DQUOTE, ACTIONS 1093),
     (anon_sym_SQUOTE_SQUOTE_SQUOTE, ACTIONS 1095), (anon_sym_r_DQUOTE, ACTIONS 1097),
     (anon_sym_r_SQUOTE, ACTIONS 1099), (anon_sym_r_DQUOTE_DQUOTE_DQUOTE, ACTIONS 1101),
     (anon_sym_r_SQUOTE_SQUOTE_SQUOTE, ACTIONS 1103), (anon_sym_LBRACE, ACTIONS 1105),
     (anon_sym_LBRACK, ACTIONS 1107), (anon_sym_null, ACTIONS 1109),
     (anon_sym_LPAREN, ACTIONS 1111), (anon_sym_LT, ACTIONS 111),
     (anon_sym_switch, ACTIONS 1113), (anon_sym_new, ACTIONS 155),
     (sym_const_builtin, ACTIONS 1115), (anon_sym_this, ACTIONS 1117),
     (anon_sym_super, ACTIONS 161), (anon_sym_SLASH_SLASH, ACTIONS 3),
     (anon_sym_SLASH_STAR, ACTIONS 5), (anon_sym_SLASH_SLASH_SLASH, ACTIONS 7),
     (sym__block_comment, ACTIONS 9), (sym__documentation_block_comment, ACTIONS 11)]"

lemma row_ok_460: "table_row_ok 460 ts_parse_table_460"
  by (simp add: row_simps ts_parse_table_460_def)

definition ts_parse_table_461 :: table_row where
  "ts_parse_table_461 = [
     (sym__on_part, STATE 493), (sym_catch_clause, STATE 3156), (sym_finally_clause, STATE 529),
     (sym_comment, STATE 461), (sym_documentation_comment, STATE 461),
     (aux_sym_try_statement_repeat1, STATE 470), (sym_identifier, ACTIONS 1127),
     (anon_sym_POUND, ACTIONS 1129), (sym_decimal_integer_literal, ACTIONS 1127),
     (sym_hex_integer_literal, ACTIONS 1129), (sym_decimal_floating_point_literal, ACTIONS 1127),
     (anon_sym_true, ACTIONS 1127), (anon_sym_false, ACTIONS 1127),
     (anon_sym_DQUOTE, ACTIONS 1127), (anon_sym_SQUOTE, ACTIONS 1127),
     (anon_sym_DQUOTE_DQUOTE_DQUOTE, ACTIONS 1129),
     (anon_sym_SQUOTE_SQUOTE_SQUOTE, ACTIONS 1129), (anon_sym_r_DQUOTE, ACTIONS 1127),
     (anon_sym_r_SQUOTE, ACTIONS 1127), (anon_sym_r_DQUOTE_DQUOTE_DQUOTE, ACTIONS 1129),
     (anon_sym_r_SQUOTE_SQUOTE_SQUOTE, ACTIONS 1129), (anon_sym_LBRACE, ACTIONS 1129),
     (anon_sym_RBRACE, ACTIONS 1129), (anon_sym_LBRACK, ACTIONS 1129),
     (anon_sym_null, ACTIONS 1127), (anon_sym_LPAREN, ACTIONS 1129),
     (anon_sym_throw, ACTIONS 1127), (anon_sym_LT, ACTIONS 1129),
     (sym_increment_operator, ACTIONS 1129), (sym_minus_operator, ACTIONS 1127),
     (anon_sym_BANG, ACTIONS 1129), (anon_sym_TILDE, ACTIONS 1129),
     (anon_sym_await, ACTIONS 1127), (anon_sym_switch, ACTIONS 1127),
     (anon_sym_default, ACTIONS 1127), (anon_sym_do, ACTIONS 1127),
     (anon_sym_while, ACTIONS 1127), (anon_sym_continue, ACTIONS 1127),
     (anon_sym_yield, ACTIONS 1127), (anon_sym_return, ACTIONS 1127),
     (anon_sym_on, ACTIONS 1131), (anon_sym_try, ACTIONS 1127), (anon_sym_catch, ACTIONS 1133),
     (anon_sym_finally, ACTIONS 1135), (anon_sym_if, ACTIONS 1127),
     (anon_sym_case, ACTIONS 1127), (anon_sym_else, ACTIONS 1127), (anon_sym_for, ACTIONS 1127),
     (anon_sym_AT, ACTIONS 1129), (anon_sym_final, ACTIONS 1127), (sym_void_type, ACTIONS 1127),
     (anon_sym_var, ACTIONS 1127), (sym_break_builtin, ACTIONS 1127),
     (sym_assert_builtin, ACTIONS 1127), (sym_rethrow_builtin, ACTIONS 1127),
     (anon_sym_covariant, ACTIONS 1127), (anon_sym_Function, ACTIONS 1127),
     (anon_sym_get, ACTIONS 1127), (anon_sym_set, ACTIONS 1127), (anon_sym_new, ACTIONS 1127),
     (sym_const_builtin, ACTIONS 1127), (anon_sym_late, ACTIONS 1127),
     (anon_sym_this, ACTIONS 1127), (anon_sym_super, ACTIONS 1127),
     (anon_sym_SLASH_SLASH, ACTIONS 3), (anon_sym_SLASH_STAR, ACTIONS 5),
     (anon_sym_SLASH_SLASH_SLASH, ACTIONS 7), (sym__block_comment, ACTIONS 9),
     (sym__documentation_block_comment, ACTIONS 11)]"

lemma row_ok_461: "table_row_ok 461 ts_parse_table_461"
  by (simp add: row_simps ts_parse_table_461_def)

definition ts_parse_table_462 :: table_row where
  "ts_parse_table_462 = [
     (sym__top_level_definition, STATE 1774), (sym_annotation, STATE 1571),
     (sym_part_of_directive, STATE 1725), (sym_enum_declaration, STATE 1769),
     (sym_type_alias, STATE 1769), (sym__class_modifiers, STATE 3195),
     (sym__mixin_class_modifiers, STATE 3373), (sym_class_definition, STATE 1769),
     (sym_extension_declaration, STATE 1769), (sym__metadata, STATE 680),
     (sym_mixin_declaration, STATE 1769), (sym_getter_signature, STATE 2207),
     (sym_setter_signature, STATE 2207), (sym__type, STATE 2433),
     (sym__type_not_function, STATE 1796), (sym__type_not_void_not_function, STATE 1896),
     (sym_function_type, STATE 1848), (aux_sym__function_type_tails, STATE 1605),
     (sym__function_type_tail, STATE 1704), (sym_record_type, STATE 1805),
     (sym__type_name, STATE 1530), (sym_inferred_type, STATE 2737),
     (sym_function_signature, STATE 2207), (sym__function_builtin_identifier, STATE 1463),
     (sym__get, STATE 2411), (sym_interface, STATE 3539), (sym_base, STATE 2767),
     (sym_abstract, STATE 2228), (sym_sealed, STATE 3539), (sym_mixin, STATE 3250),
     (sym__set, STATE 2377), (sym__typedef, STATE 2082), (sym_final_builtin, STATE 1989),
     (sym__late_builtin, STATE 1957), (sym__external_builtin, STATE 1818),
     (sym_comment, STATE 462), (sym_documentation_comment, STATE 462),
     (aux_sym_program_repeat3, STATE 1474), (aux_sym_program_repeat4, STATE 478),
     (aux_sym__metadata_repeat1, STATE 1454), (ts_builtin_sym_end, ACTIONS 1037),
     (sym_identifier, ACTIONS 15), (anon_sym_LPAREN, ACTIONS 17), (anon_sym_AT, ACTIONS 19),
     (anon_sym_enum, ACTIONS 23), (anon_sym_final, ACTIONS 25), (anon_sym_inline, ACTIONS 27),
     (anon_sym_class, ACTIONS 29), (anon_sym_extension, ACTIONS 31), (sym_void_type, ACTIONS 33),
     (anon_sym_var, ACTIONS 35), (sym_part_of_builtin, ACTIONS 41),
     (anon_sym_Function, ACTIONS 45), (anon_sym_get, ACTIONS 47),
     (anon_sym_interface, ACTIONS 51), (anon_sym_base, ACTIONS 53),
     (anon_sym_abstract, ACTIONS 55), (anon_sym_sealed, ACTIONS 57),
     (anon_sym_mixin, ACTIONS 59), (anon_sym_set, ACTIONS 61), (anon_sym_typedef, ACTIONS 63),
     (sym_const_builtin, ACTIONS 65), (anon_sym_late, ACTIONS 67),
     (anon_sym_external, ACTIONS 69), (anon_sym_SLASH_SLASH, ACTIONS 3),
     (anon_sym_SLASH_STAR, ACTIONS 5), (anon_sym_SLASH_SLASH_SLASH, ACTIONS 7),
     (sym__block_comment, ACTIONS 9), (sym__documentation_block_comment, ACTIONS 11)]"

lemma row_ok_462: "table_row_ok 462 ts_parse_table_462"
  by (simp add: row_simps ts_parse_table_462_def)

definition ts_parse_table_463 :: table_row where
  "ts_parse_table_463 = [
     (sym__top_level_definition, STATE 1774), (sym_annotation, STATE 1571),
     (sym_part_of_directive, STATE 1725), (sym_enum_declaration, STATE 1769),
     (sym_type_alias, STATE 1769), (sym__class_modifiers, STATE 3195),
     (sym__mixin_class_modifiers, STATE 3373), (sym_class_definition, STATE 1769),
     (sym_extension_declaration, STATE 1769), (sym__metadata, STATE 680),
     (sym_mixin_declaration, STATE 1769), (sym_getter_signature, STATE 2207),
     (sym_setter_signature, STATE 2207), (sym__type, STATE 2433),
     (sym__type_not_function, STATE 1796), (sym__type_not_void_not_function, STATE 1896),
     (sym_function_type, STATE 1848), (aux_sym__function_type_tails, STATE 1605),
     (sym__function_type_tail, STATE 1704), (sym_record_type, STATE 1805),
     (sym__type_name, STATE 1530), (sym_inferred_type, STATE 2737),
     (sym_function_signature, STATE 2207), (sym__function_builtin_identifier, STATE 1463),
     (sym__get, STATE 2411), (sym_interface, STATE 3539), (sym_base, STATE 2767),
     (sym_abstract, STATE 2228), (sym_sealed, STATE 3539), (sym_mixin, STATE 3250),
     (sym__set, STATE 2377), (sym__typedef, STATE 2082), (sym_final_builtin, STATE 1989),
     (sym__late_builtin, STATE 1957), (sym__external_builtin, STATE 1818),
     (sym_comment, STATE 463), (sym_documentation_comment, STATE 463),
     (aux_sym_program_repeat3, STATE 1474), (aux_sym_program_repeat4, STATE 477),
     (aux_sym__metadata_repeat1, STATE 1454), (ts_builtin_sym_end, ACTIONS 1035),
     (sym_identifier, ACTIONS 15), (anon_sym_LPAREN, ACTIONS 17), (anon_sym_AT, ACTIONS 19),
     (anon_sym_enum, ACTIONS 23), (anon_sym_final, ACTIONS 25), (anon_sym_inline, ACTIONS 27),
     (anon_sym_class, ACTIONS 29), (anon_sym_extension, ACTIONS 31), (sym_void_type, ACTIONS 33),
     (anon_sym_var, ACTIONS 35), (sym_part_of_builtin, ACTIONS 41),
     (anon_sym_Function, ACTIONS 45), (anon_sym_get, ACTIONS 47),
     (anon_sym_interface, ACTIONS 51), (anon_sym_base, ACTIONS 53),
     (anon_sym_abstract, ACTIONS 55), (anon_sym_sealed, ACTIONS 57),
     (anon_sym_mixin, ACTIONS 59), (anon_sym_set, ACTIONS 61), (anon_sym_typedef, ACTIONS 63),
     (sym_const_builtin, ACTIONS 65), (anon_sym_late, ACTIONS 67),
     (anon_sym_external, ACTIONS 69), (anon_sym_SLASH_SLASH, ACTIONS 3),
     (anon_sym_SLASH_STAR, ACTIONS 5), (anon_sym_SLASH_SLASH_SLASH, ACTIONS 7),
     (sym__block_comment, ACTIONS 9), (sym__documentation_block_comment, ACTIONS 11)]"

lemma row_ok_463: "table_row_ok 463 ts_parse_table_463"
  by (simp add: row_simps ts_parse_table_463_def)

definition ts_parse_table_464 :: table_row where
  "ts_parse_table_464 = [
     (sym__on_part, STATE 493), (sym_catch_clause, STATE 3156), (sym_finally_clause, STATE 548),
     (sym_comment, STATE 464), (sym_documentation_comment, STATE 464),
     (aux_sym_try_statement_repeat1, STATE 461), (sym_identifier, ACTIONS 1137),
     (anon_sym_POUND, ACTIONS 1139), (sym_decimal_integer_literal, ACTIONS 1137),
     (sym_hex_integer_literal, ACTIONS 1139), (sym_decimal_floating_point_literal, ACTIONS 1137),
     (anon_sym_true, ACTIONS 1137), (anon_sym_false, ACTIONS 1137),
     (anon_sym_DQUOTE, ACTIONS 1137), (anon_sym_SQUOTE, ACTIONS 1137),
     (anon_sym_DQUOTE_DQUOTE_DQUOTE, ACTIONS 1139),
     (anon_sym_SQUOTE_SQUOTE_SQUOTE, ACTIONS 1139), (anon_sym_r_DQUOTE, ACTIONS 1137),
     (anon_sym_r_SQUOTE, ACTIONS 1137), (anon_sym_r_DQUOTE_DQUOTE_DQUOTE, ACTIONS 1139),
     (anon_sym_r_SQUOTE_SQUOTE_SQUOTE, ACTIONS 1139), (anon_sym_LBRACE, ACTIONS 1139),
     (anon_sym_RBRACE, ACTIONS 1139), (anon_sym_LBRACK, ACTIONS 1139),
     (anon_sym_null, ACTIONS 1137), (anon_sym_LPAREN, ACTIONS 1139),
     (anon_sym_throw, ACTIONS 1137), (anon_sym_LT, ACTIONS 1139),
     (sym_increment_operator, ACTIONS 1139), (sym_minus_operator, ACTIONS 1137),
     (anon_sym_BANG, ACTIONS 1139), (anon_sym_TILDE, ACTIONS 1139),
     (anon_sym_await, ACTIONS 1137), (anon_sym_switch, ACTIONS 1137),
     (anon_sym_default, ACTIONS 1137), (anon_sym_do, ACTIONS 1137),
     (anon_sym_while, ACTIONS 1137), (anon_sym_continue, ACTIONS 1137),
     (anon_sym_yield, ACTIONS 1137), (anon_sym_return, ACTIONS 1137),
     (anon_sym_on, ACTIONS 1131), (anon_sym_try, ACTIONS 1137), (anon_sym_catch, ACTIONS 1133),
     (anon_sym_finally, ACTIONS 1135), (anon_sym_if, ACTIONS 1137),
     (anon_sym_case, ACTIONS 1137), (anon_sym_else, ACTIONS 1137), (anon_sym_for, ACTIONS 1137),
     (anon_sym_AT, ACTIONS 1139), (anon_sym_final, ACTIONS 1137), (sym_void_type, ACTIONS 1137),
     (anon_sym_var, ACTIONS 1137), (sym_break_builtin, ACTIONS 1137),
     (sym_assert_builtin, ACTIONS 1137), (sym_rethrow_builtin, ACTIONS 1137),
     (anon_sym_covariant, ACTIONS 1137), (anon_sym_Function, ACTIONS 1137),
     (anon_sym_get, ACTIONS 1137), (anon_sym_set, ACTIONS 1137), (anon_sym_new, ACTIONS 1137),
     (sym_const_builtin, ACTIONS 1137), (anon_sym_late, ACTIONS 1137),
     (anon_sym_this, ACTIONS 1137), (anon_sym_super, ACTIONS 1137),
     (anon_sym_SLASH_SLASH, ACTIONS 3), (anon_sym_SLASH_STAR, ACTIONS 5),
     (anon_sym_SLASH_SLASH_SLASH, ACTIONS 7), (sym__block_comment, ACTIONS 9),
     (sym__documentation_block_comment, ACTIONS 11)]"

lemma row_ok_464: "table_row_ok 464 ts_parse_table_464"
  by (simp add: row_simps ts_parse_table_464_def)

definition ts_parse_table_465 :: table_row where
  "ts_parse_table_465 = [
     (sym__top_level_definition, STATE 1774), (sym_annotation, STATE 1571),
     (sym_part_of_directive, STATE 1725), (sym_enum_declaration, STATE 1769),
     (sym_type_alias, STATE 1769), (sym__class_modifiers, STATE 3195),
     (sym__mixin_class_modifiers, STATE 3373), (sym_class_definition, STATE 1769),
     (sym_extension_declaration, STATE 1769), (sym__metadata, STATE 680),
     (sym_mixin_declaration, STATE 1769), (sym_getter_signature, STATE 2207),
     (sym_setter_signature, STATE 2207), (sym__type, STATE 2433),
     (sym__type_not_function, STATE 1796), (sym__type_not_void_not_function, STATE 1896),
     (sym_function_type, STATE 1848), (aux_sym__function_type_tails, STATE 1605),
     (sym__function_type_tail, STATE 1704), (sym_record_type, STATE 1805),
     (sym__type_name, STATE 1530), (sym_inferred_type, STATE 2737),
     (sym_function_signature, STATE 2207), (sym__function_builtin_identifier, STATE 1463),
     (sym__get, STATE 2411), (sym_interface, STATE 3539), (sym_base, STATE 2767),
     (sym_abstract, STATE 2228), (sym_sealed, STATE 3539), (sym_mixin, STATE 3250),
     (sym__set, STATE 2377), (sym__typedef, STATE 2082), (sym_final_builtin, STATE 1989),
     (sym__late_builtin, STATE 1957), (sym__external_builtin, STATE 1818),
     (sym_comment, STATE 465), (sym_documentation_comment, STATE 465),
     (aux_sym_program_repeat3, STATE 1474), (aux_sym_program_repeat4, STATE 482),
     (aux_sym__metadata_repeat1, STATE 1454), (ts_builtin_sym_end, ACTIONS 1141),
     (sym_identifier, ACTIONS 15), (anon_sym_LPAREN, ACTIONS 17), (anon_sym_AT, ACTIONS 19),
     (anon_sym_enum, ACTIONS 23), (anon_sym_final, ACTIONS 25), (anon_sym_inline, ACTIONS 27),
     (anon_sym_class, ACTIONS 29), (anon_sym_extension, ACTIONS 31), (sym_void_type, ACTIONS 33),
     (anon_sym_var, ACTIONS 35), (sym_part_of_builtin, ACTIONS 41),
     (anon_sym_Function, ACTIONS 45), (anon_sym_get, ACTIONS 47),
     (anon_sym_interface, ACTIONS 51), (anon_sym_base, ACTIONS 53),
     (anon_sym_abstract, ACTIONS 55), (anon_sym_sealed, ACTIONS 57),
     (anon_sym_mixin, ACTIONS 59), (anon_sym_set, ACTIONS 61), (anon_sym_typedef, ACTIONS 63),
     (sym_const_builtin, ACTIONS 65), (anon_sym_late, ACTIONS 67),
     (anon_sym_external, ACTIONS 69), (anon_sym_SLASH_SLASH, ACTIONS 3),
     (anon_sym_SLASH_STAR, ACTIONS 5), (anon_sym_SLASH_SLASH_SLASH, ACTIONS 7),
     (sym__block_comment, ACTIONS 9), (sym__documentation_block_comment, ACTIONS 11)]"

lemma row_ok_465: "table_row_ok 465 ts_parse_table_465"
  by (simp add: row_simps ts_parse_table_465_def)

definition ts_parse_table_466 :: table_row where
  "ts_parse_table_466 = [
     (sym__assignment_operator, STATE 296), (sym_arguments, STATE 653),
     (sym__cascade_subsection, STATE 652), (sym__cascade_assignment_section, STATE 1163),
     (sym_index_selector, STATE 649), (sym_argument_part, STATE 650),
     (sym_unconditional_assignable_selector, STATE 641),
     (sym_conditional_assignable_selector, STATE 641), (sym__assignable_selector, STATE 561),
     (sym_type_arguments, STATE 3126), (sym_comment, STATE 466),
     (sym_documentation_comment, STATE 466), (aux_sym_cascade_section_repeat1, STATE 467),
     (aux_sym_cascade_section_repeat2, STATE 490), (anon_sym_LBRACE, ACTIONS 1073),
     (anon_sym_LBRACK, ACTIONS 1073), (anon_sym_COMMA, ACTIONS 1073),
     (anon_sym_LPAREN, ACTIONS 1073), (anon_sym_EQ, ACTIONS 1067),
     (anon_sym_PLUS_EQ, ACTIONS 1069), (anon_sym_DASH_EQ, ACTIONS 1069),
     (anon_sym_STAR_EQ, ACTIONS 1069), (anon_sym_SLASH_EQ, ACTIONS 1069),
     (anon_sym_PERCENT_EQ, ACTIONS 1069), (anon_sym_TILDE_SLASH_EQ, ACTIONS 1069),
     (anon_sym_LT_LT_EQ, ACTIONS 1069), (anon_sym_GT_GT_EQ, ACTIONS 1069),
     (anon_sym_GT_GT_GT_EQ, ACTIONS 1069), (anon_sym_AMP_EQ, ACTIONS 1069),
     (anon_sym_CARET_EQ, ACTIONS 1069), (anon_sym_PIPE_EQ, ACTIONS 1069),
     (anon_sym_QMARK_QMARK_EQ, ACTIONS 1069), (anon_sym_QMARK_QMARK, ACTIONS 1075),
     (anon_sym_QMARK, ACTIONS 1075), (sym_equality_operator, ACTIONS 1073),
     (anon_sym_LT, ACTIONS 1075), (anon_sym_GT, ACTIONS 1075), (anon_sym_LT_EQ, ACTIONS 1073),
     (anon_sym_GT_EQ, ACTIONS 1073), (anon_sym_PIPE, ACTIONS 1075),
     (anon_sym_CARET, ACTIONS 1075), (anon_sym_AMP, ACTIONS 1075),
     (anon_sym_LT_LT, ACTIONS 1075), (anon_sym_GT_GT, ACTIONS 1075),
     (anon_sym_GT_GT_GT, ACTIONS 1075), (sym__additive_operator, ACTIONS 1075),
     (anon_sym_STAR, ACTIONS 1075), (anon_sym_SLASH, ACTIONS 1075),
     (anon_sym_PERCENT, ACTIONS 1075), (anon_sym_TILDE_SLASH, ACTIONS 1075),
     (anon_sym_BANG, ACTIONS 1075), (anon_sym_is, ACTIONS 1073), (anon_sym_as, ACTIONS 1075),
     (anon_sym_DOT, ACTIONS 1075), (anon_sym_QMARK_DOT, ACTIONS 1075),
     (anon_sym_DOT_DOT, ACTIONS 1073), (anon_sym_QMARK_DOT_DOT, ACTIONS 1073),
     (anon_sym_SEMI, ACTIONS 1073), (anon_sym_EQ_GT, ACTIONS 1073),
     (anon_sym_async, ACTIONS 1075), (anon_sym_async_STAR, ACTIONS 1073),
     (anon_sym_sync_STAR, ACTIONS 1073), (anon_sym_AMP_AMP, ACTIONS 1073),
     (anon_sym_PIPE_PIPE, ACTIONS 1073), (anon_sym_SLASH_SLASH, ACTIONS 3),
     (anon_sym_SLASH_STAR, ACTIONS 5), (anon_sym_SLASH_SLASH_SLASH, ACTIONS 7),
     (sym__block_comment, ACTIONS 9), (sym__documentation_block_comment, ACTIONS 11)]"

lemma row_ok_466: "table_row_ok 466 ts_parse_table_466"
  by (simp add: row_simps ts_parse_table_466_def)

definition ts_parse_table_467 :: table_row where
  "ts_parse_table_467 = [
     (sym__assignment_operator, STATE 296), (sym_arguments, STATE 653),
     (sym__cascade_subsection, STATE 652), (sym__cascade_assignment_section, STATE 1123),
     (sym_index_selector, STATE 649), (sym_argument_part, STATE 650),
     (sym_unconditional_assignable_selector, STATE 641),
     (sym_conditional_assignable_selector, STATE 641), (sym__assignable_selector, STATE 561),
     (sym_type_arguments, STATE 3126), (sym_comment, STATE 467),
     (sym_documentation_comment, STATE 467), (aux_sym_cascade_section_repeat1, STATE 566),
     (aux_sym_cascade_section_repeat2, STATE 487), (anon_sym_LBRACE, ACTIONS 1065),
     (anon_sym_LBRACK, ACTIONS 1065), (anon_sym_COMMA, ACTIONS 1065),
     (anon_sym_LPAREN, ACTIONS 1065), (anon_sym_EQ, ACTIONS 1067),
     (anon_sym_PLUS_EQ, ACTIONS 1069), (anon_sym_DASH_EQ, ACTIONS 1069),
     (anon_sym_STAR_EQ, ACTIONS 1069), (anon_sym_SLASH_EQ, ACTIONS 1069),
     (anon_sym_PERCENT_EQ, ACTIONS 1069), (anon_sym_TILDE_SLASH_EQ, ACTIONS 1069),
     (anon_sym_LT_LT_EQ, ACTIONS 1069), (anon_sym_GT_GT_EQ, ACTIONS 1069),
     (anon_sym_GT_GT_GT_EQ, ACTIONS 1069), (anon_sym_AMP_EQ, ACTIONS 1069),
     (anon_sym_CARET_EQ, ACTIONS 1069), (anon_sym_PIPE_EQ, ACTIONS 1069),
     (anon_sym_QMARK_QMARK_EQ, ACTIONS 1069), (anon_sym_QMARK_QMARK, ACTIONS 1071),
     (anon_sym_QMARK, ACTIONS 1071), (sym_equality_operator, ACTIONS 1065),
     (anon_sym_LT, ACTIONS 1071), (anon_sym_GT, ACTIONS 1071), (anon_sym_LT_EQ, ACTIONS 1065),
     (anon_sym_GT_EQ, ACTIONS 1065), (anon_sym_PIPE, ACTIONS 1071),
     (anon_sym_CARET, ACTIONS 1071), (anon_sym_AMP, ACTIONS 1071),
     (anon_sym_LT_LT, ACTIONS 1071), (anon_sym_GT_GT, ACTIONS 1071),
     (anon_sym_GT_GT_GT, ACTIONS 1071), (sym__additive_operator, ACTIONS 1071),
     (anon_sym_STAR, ACTIONS 1071), (anon_sym_SLASH, ACTIONS 1071),
     (anon_sym_PERCENT, ACTIONS 1071), (anon_sym_TILDE_SLASH, ACTIONS 1071),
     (anon_sym_BANG, ACTIONS 1071), (anon_sym_is, ACTIONS 1065), (anon_sym_as, ACTIONS 1071),
     (anon_sym_DOT, ACTIONS 1071), (anon_sym_QMARK_DOT, ACTIONS 1071),
     (anon_sym_DOT_DOT, ACTIONS 1065), (anon_sym_QMARK_DOT_DOT, ACTIONS 1065),
     (anon_sym_SEMI, ACTIONS 1065), (anon_sym_EQ_GT, ACTIONS 1065),
     (anon_sym_async, ACTIONS 1071), (anon_sym_async_STAR, ACTIONS 1065),
     (anon_sym_sync_STAR, ACTIONS 1065), (anon_sym_AMP_AMP, ACTIONS 1065),
     (anon_sym_PIPE_PIPE, ACTIONS 1065), (anon_sym_SLASH_SLASH, ACTIONS 3),
     (anon_sym_SLASH_STAR, ACTIONS 5), (anon_sym_SLASH_SLASH_SLASH, ACTIONS 7),
     (sym__block_comment, ACTIONS 9), (sym__documentation_block_comment, ACTIONS 11)]"

lemma row_ok_467: "table_row_ok 467 ts_parse_table_467"
  by (simp add: row_simps ts_parse_table_467_def)

definition ts_parse_table_468 :: table_row where
  "ts_parse_table_468 = [
     (sym__top_level_definition, STATE 1774), (sym_annotation, STATE 1571),
     (sym_part_of_directive, STATE 1725), (sym_enum_declaration, STATE 1769),
     (sym_type_alias, STATE 1769), (sym__class_modifiers, STATE 3195),
     (sym__mixin_class_modifiers, STATE 3373), (sym_class_definition, STATE 1769),
     (sym_extension_declaration, STATE 1769), (sym__metadata, STATE 680),
     (sym_mixin_declaration, STATE 1769), (sym_getter_signature, STATE 2207),
     (sym_setter_signature, STATE 2207), (sym__type, STATE 2433),
     (sym__type_not_function, STATE 1796), (sym__type_not_void_not_function, STATE 1896),
     (sym_function_type, STATE 1848), (aux_sym__function_type_tails, STATE 1605),
     (sym__function_type_tail, STATE 1704), (sym_record_type, STATE 1805),
     (sym__type_name, STATE 1530), (sym_inferred_type, STATE 2737),
     (sym_function_signature, STATE 2207), (sym__function_builtin_identifier, STATE 1463),
     (sym__get, STATE 2411), (sym_interface, STATE 3539), (sym_base, STATE 2767),
     (sym_abstract, STATE 2228), (sym_sealed, STATE 3539), (sym_mixin, STATE 3250),
     (sym__set, STATE 2377), (sym__typedef, STATE 2082), (sym_final_builtin, STATE 1989),
     (sym__late_builtin, STATE 1957), (sym__external_builtin, STATE 1818),
     (sym_comment, STATE 468), (sym_documentation_comment, STATE 468),
     (aux_sym_program_repeat3, STATE 1474), (aux_sym_program_repeat4, STATE 480),
     (aux_sym__metadata_repeat1, STATE 1454), (ts_builtin_sym_end, ACTIONS 1063),
     (sym_identifier, ACTIONS 15), (anon_sym_LPAREN, ACTIONS 17), (anon_sym_AT, ACTIONS 19),
     (anon_sym_enum, ACTIONS 23), (anon_sym_final, ACTIONS 25), (anon_sym_inline, ACTIONS 27),
     (anon_sym_class, ACTIONS 29), (anon_sym_extension, ACTIONS 31), (sym_void_type, ACTIONS 33),
     (anon_sym_var, ACTIONS 35), (sym_part_of_builtin, ACTIONS 41),
     (anon_sym_Function, ACTIONS 45), (anon_sym_get, ACTIONS 47),
     (anon_sym_interface, ACTIONS 51), (anon_sym_base, ACTIONS 53),
     (anon_sym_abstract, ACTIONS 55), (anon_sym_sealed, ACTIONS 57),
     (anon_sym_mixin, ACTIONS 59), (anon_sym_set, ACTIONS 61), (anon_sym_typedef, ACTIONS 63),
     (sym_const_builtin, ACTIONS 65), (anon_sym_late, ACTIONS 67),
     (anon_sym_external, ACTIONS 69), (anon_sym_SLASH_SLASH, ACTIONS 3),
     (anon_sym_SLASH_STAR, ACTIONS 5), (anon_sym_SLASH_SLASH_SLASH, ACTIONS 7),
     (sym__block_comment, ACTIONS 9), (sym__documentation_block_comment, ACTIONS 11)]"

lemma row_ok_468: "table_row_ok 468 ts_parse_table_468"
  by (simp add: row_simps ts_parse_table_468_def)

definition ts_parse_table_469 :: table_row where
  "ts_parse_table_469 = [
     (sym__top_level_definition, STATE 1774), (sym_annotation, STATE 1571),
     (sym_part_of_directive, STATE 1725), (sym_enum_declaration, STATE 1769),
     (sym_type_alias, STATE 1769), (sym__class_modifiers, STATE 3195),
     (sym__mixin_class_modifiers, STATE 3373), (sym_class_definition, STATE 1769),
     (sym_extension_declaration, STATE 1769), (sym__metadata, STATE 680),
     (sym_mixin_declaration, STATE 1769), (sym_getter_signature, STATE 2207),
     (sym_setter_signature, STATE 2207), (sym__type, STATE 2433),
     (sym__type_not_function, STATE 1796), (sym__type_not_void_not_function, STATE 1896),
     (sym_function_type, STATE 1848), (aux_sym__function_type_tails, STATE 1605),
     (sym__function_type_tail, STATE 1704), (sym_record_type, STATE 1805),
     (sym__type_name, STATE 1530), (sym_inferred_type, STATE 2737),
     (sym_function_signature, STATE 2207), (sym__function_builtin_identifier, STATE 1463),
     (sym__get, STATE 2411), (sym_interface, STATE 3539), (sym_base, STATE 2767),
     (sym_abstract, STATE 2228), (sym_sealed, STATE 3539), (sym_mixin, STATE 3250),
     (sym__set, STATE 2377), (sym__typedef, STATE 2082), (sym_final_builtin, STATE 1989),
     (sym__late_builtin, STATE 1957), (sym__external_builtin, STATE 1818),
     (sym_comment, STATE 469), (sym_documentation_comment, STATE 469),
     (aux_sym_program_repeat3, STATE 1474), (aux_sym_program_repeat4, STATE 476),
     (aux_sym__metadata_repeat1, STATE 1454), (ts_builtin_sym_end, ACTIONS 1033),
     (sym_identifier, ACTIONS 15), (anon_sym_LPAREN, ACTIONS 17), (anon_sym_AT, ACTIONS 19),
     (anon_sym_enum, ACTIONS 23), (anon_sym_final, ACTIONS 25), (anon_sym_inline, ACTIONS 27),
     (anon_sym_class, ACTIONS 29), (anon_sym_extension, ACTIONS 31), (sym_void_type, ACTIONS 33),
     (anon_sym_var, ACTIONS 35), (sym_part_of_builtin, ACTIONS 41),
     (anon_sym_Function, ACTIONS 45), (anon_sym_get, ACTIONS 47),
     (anon_sym_interface, ACTIONS 51), (anon_sym_base, ACTIONS 53),
     (anon_sym_abstract, ACTIONS 55), (anon_sym_sealed, ACTIONS 57),
     (anon_sym_mixin, ACTIONS 59), (anon_sym_set, ACTIONS 61), (anon_sym_typedef, ACTIONS 63),
     (sym_const_builtin, ACTIONS 65), (anon_sym_late, ACTIONS 67),
     (anon_sym_external, ACTIONS 69), (anon_sym_SLASH_SLASH, ACTIONS 3),
     (anon_sym_SLASH_STAR, ACTIONS 5), (anon_sym_SLASH_SLASH_SLASH, ACTIONS 7),
     (sym__block_comment, ACTIONS 9), (sym__documentation_block_comment, ACTIONS 11)]"

lemma row_ok_469: "table_row_ok 469 ts_parse_table_469"
  by (simp add: row_simps ts_parse_table_469_def)

definition ts_parse_table_470 :: table_row where
  "ts_parse_table_470 = [
     (sym__on_part, STATE 493), (sym_catch_clause, STATE 3156), (sym_comment, STATE 470),
     (sym_documentation_comment, STATE 470), (aux_sym_try_statement_repeat1, STATE 470),
     (sym_identifier, ACTIONS 1143), (anon_sym_POUND, ACTIONS 1145),
     (sym_decimal_integer_literal, ACTIONS 1143), (sym_hex_integer_literal, ACTIONS 1145),
     (sym_decimal_floating_point_literal, ACTIONS 1143), (anon_sym_true, ACTIONS 1143),
     (anon_sym_false, ACTIONS 1143), (anon_sym_DQUOTE, ACTIONS 1143),
     (anon_sym_SQUOTE, ACTIONS 1143), (anon_sym_DQUOTE_DQUOTE_DQUOTE, ACTIONS 1145),
     (anon_sym_SQUOTE_SQUOTE_SQUOTE, ACTIONS 1145), (anon_sym_r_DQUOTE, ACTIONS 1143),
     (anon_sym_r_SQUOTE, ACTIONS 1143), (anon_sym_r_DQUOTE_DQUOTE_DQUOTE, ACTIONS 1145),
     (anon_sym_r_SQUOTE_SQUOTE_SQUOTE, ACTIONS 1145), (anon_sym_LBRACE, ACTIONS 1145),
     (anon_sym_RBRACE, ACTIONS 1145), (anon_sym_LBRACK, ACTIONS 1145),
     (anon_sym_null, ACTIONS 1143), (anon_sym_LPAREN, ACTIONS 1145),
     (anon_sym_throw, ACTIONS 1143), (anon_sym_LT, ACTIONS 1145),
     (sym_increment_operator, ACTIONS 1145), (sym_minus_operator, ACTIONS 1143),
     (anon_sym_BANG, ACTIONS 1145), (anon_sym_TILDE, ACTIONS 1145),
     (anon_sym_await, ACTIONS 1143), (anon_sym_switch, ACTIONS 1143),
     (anon_sym_default, ACTIONS 1143), (anon_sym_do, ACTIONS 1143),
     (anon_sym_while, ACTIONS 1143), (anon_sym_continue, ACTIONS 1143),
     (anon_sym_yield, ACTIONS 1143), (anon_sym_return, ACTIONS 1143),
     (anon_sym_on, ACTIONS 1147), (anon_sym_try, ACTIONS 1143), (anon_sym_catch, ACTIONS 1150),
     (anon_sym_finally, ACTIONS 1143), (anon_sym_if, ACTIONS 1143),
     (anon_sym_case, ACTIONS 1143), (anon_sym_else, ACTIONS 1143), (anon_sym_for, ACTIONS 1143),
     (anon_sym_AT, ACTIONS 1145), (anon_sym_final, ACTIONS 1143), (sym_void_type, ACTIONS 1143),
     (anon_sym_var, ACTIONS 1143), (sym_break_builtin, ACTIONS 1143),
     (sym_assert_builtin, ACTIONS 1143), (sym_rethrow_builtin, ACTIONS 1143),
     (anon_sym_covariant, ACTIONS 1143), (anon_sym_Function, ACTIONS 1143),
     (anon_sym_get, ACTIONS 1143), (anon_sym_set, ACTIONS 1143), (anon_sym_new, ACTIONS 1143),
     (sym_const_builtin, ACTIONS 1143), (anon_sym_late, ACTIONS 1143),
     (anon_sym_this, ACTIONS 1143), (anon_sym_super, ACTIONS 1143),
     (anon_sym_SLASH_SLASH, ACTIONS 3), (anon_sym_SLASH_STAR, ACTIONS 5),
     (anon_sym_SLASH_SLASH_SLASH, ACTIONS 7), (sym__block_comment, ACTIONS 9),
     (sym__documentation_block_comment, ACTIONS 11)]"

lemma row_ok_470: "table_row_ok 470 ts_parse_table_470"
  by (simp add: row_simps ts_parse_table_470_def)

definition ts_parse_table_471 :: table_row where
  "ts_parse_table_471 = [
     (sym__assignment_operator, STATE 298), (sym__cascade_subsection, STATE 580),
     (sym__cascade_assignment_section, STATE 980), (sym_index_selector, STATE 581),
     (sym_unconditional_assignable_selector, STATE 602),
     (sym_conditional_assignable_selector, STATE 602), (sym__assignable_selector, STATE 499),
     (sym_comment, STATE 471), (sym_documentation_comment, STATE 471),
     (aux_sym_cascade_section_repeat2, STATE 483), (anon_sym_RBRACE, ACTIONS 1065),
     (anon_sym_LBRACK, ACTIONS 1065), (anon_sym_COMMA, ACTIONS 1065),
     (anon_sym_RBRACK, ACTIONS 1065), (anon_sym_COLON, ACTIONS 1065),
     (anon_sym_LPAREN, ACTIONS 1065), (anon_sym_RPAREN, ACTIONS 1065),
     (anon_sym_EQ, ACTIONS 1067), (anon_sym_PLUS_EQ, ACTIONS 1069),
     (anon_sym_DASH_EQ, ACTIONS 1069), (anon_sym_STAR_EQ, ACTIONS 1069),
     (anon_sym_SLASH_EQ, ACTIONS 1069), (anon_sym_PERCENT_EQ, ACTIONS 1069),
     (anon_sym_TILDE_SLASH_EQ, ACTIONS 1069), (anon_sym_LT_LT_EQ, ACTIONS 1069),
     (anon_sym_GT_GT_EQ, ACTIONS 1069), (anon_sym_GT_GT_GT_EQ, ACTIONS 1069),
     (anon_sym_AMP_EQ, ACTIONS 1069), (anon_sym_CARET_EQ, ACTIONS 1069),
     (anon_sym_PIPE_EQ, ACTIONS 1069), (anon_sym_QMARK_QMARK_EQ, ACTIONS 1069),
     (anon_sym_QMARK_QMARK, ACTIONS 1071), (anon_sym_QMARK, ACTIONS 1071),
     (sym_equality_operator, ACTIONS 1065), (anon_sym_LT, ACTIONS 1071),
     (anon_sym_GT, ACTIONS 1071), (anon_sym_LT_EQ, ACTIONS 1065), (anon_sym_GT_EQ, ACTIONS 1065),
     (anon_sym_PIPE, ACTIONS 1071), (anon_sym_CARET, ACTIONS 1071), (anon_sym_AMP, ACTIONS 1071),
     (anon_sym_LT_LT, ACTIONS 1071), (anon_sym_GT_GT, ACTIONS 1071),
     (anon_sym_GT_GT_GT, ACTIONS 1071), (sym__additive_operator, ACTIONS 1071),
     (anon_sym_STAR, ACTIONS 1071), (anon_sym_SLASH, ACTIONS 1071),
     (anon_sym_PERCENT, ACTIONS 1071), (anon_sym_TILDE_SLASH, ACTIONS 1071),
     (anon_sym_BANG, ACTIONS 1071), (anon_sym_is, ACTIONS 1065), (anon_sym_as, ACTIONS 1065),
     (anon_sym_DOT, ACTIONS 1071), (anon_sym_QMARK_DOT, ACTIONS 1071),
     (anon_sym_DOT_DOT, ACTIONS 1065), (anon_sym_QMARK_DOT_DOT, ACTIONS 1065),
     (anon_sym_SEMI, ACTIONS 1065), (anon_sym_EQ_GT, ACTIONS 1065),
     (anon_sym_when, ACTIONS 1065), (anon_sym_case, ACTIONS 1065), (anon_sym_else, ACTIONS 1065),
     (anon_sym_AMP_AMP, ACTIONS 1065), (anon_sym_PIPE_PIPE, ACTIONS 1065),
     (anon_sym_SLASH_SLASH, ACTIONS 3), (anon_sym_SLASH_STAR, ACTIONS 5),
     (anon_sym_SLASH_SLASH_SLASH, ACTIONS 7), (sym__block_comment, ACTIONS 9),
     (sym__documentation_block_comment, ACTIONS 11)]"

lemma row_ok_471: "table_row_ok 471 ts_parse_table_471"
  by (simp add: row_simps ts_parse_table_471_def)

definition ts_parse_table_472 :: table_row where
  "ts_parse_table_472 = [
     (sym__assignment_operator, STATE 298), (sym__cascade_subsection, STATE 580),
     (sym__cascade_assignment_section, STATE 939), (sym_index_selector, STATE 581),
     (sym_unconditional_assignable_selector, STATE 602),
     (sym_conditional_assignable_selector, STATE 602), (sym__assignable_selector, STATE 499),
     (sym_comment, STATE 472), (sym_documentation_comment, STATE 472),
     (aux_sym_cascade_section_repeat2, STATE 483), (anon_sym_RBRACE, ACTIONS 1153),
     (anon_sym_LBRACK, ACTIONS 1153), (anon_sym_COMMA, ACTIONS 1153),
     (anon_sym_RBRACK, ACTIONS 1153), (anon_sym_COLON, ACTIONS 1153),
     (anon_sym_LPAREN, ACTIONS 1153), (anon_sym_RPAREN, ACTIONS 1153),
     (anon_sym_EQ, ACTIONS 1067), (anon_sym_PLUS_EQ, ACTIONS 1069),
     (anon_sym_DASH_EQ, ACTIONS 1069), (anon_sym_STAR_EQ, ACTIONS 1069),
     (anon_sym_SLASH_EQ, ACTIONS 1069), (anon_sym_PERCENT_EQ, ACTIONS 1069),
     (anon_sym_TILDE_SLASH_EQ, ACTIONS 1069), (anon_sym_LT_LT_EQ, ACTIONS 1069),
     (anon_sym_GT_GT_EQ, ACTIONS 1069), (anon_sym_GT_GT_GT_EQ, ACTIONS 1069),
     (anon_sym_AMP_EQ, ACTIONS 1069), (anon_sym_CARET_EQ, ACTIONS 1069),
     (anon_sym_PIPE_EQ, ACTIONS 1069), (anon_sym_QMARK_QMARK_EQ, ACTIONS 1069),
     (anon_sym_QMARK_QMARK, ACTIONS 1155), (anon_sym_QMARK, ACTIONS 1155),
     (sym_equality_operator, ACTIONS 1153), (anon_sym_LT, ACTIONS 1155),
     (anon_sym_GT, ACTIONS 1155), (anon_sym_LT_EQ, ACTIONS 1153), (anon_sym_GT_EQ, ACTIONS 1153),
     (anon_sym_PIPE, ACTIONS 1155), (anon_sym_CARET, ACTIONS 1155), (anon_sym_AMP, ACTIONS 1155),
     (anon_sym_LT_LT, ACTIONS 1155), (anon_sym_GT_GT, ACTIONS 1155),
     (anon_sym_GT_GT_GT, ACTIONS 1155), (sym__additive_operator, ACTIONS 1155),
     (anon_sym_STAR, ACTIONS 1155), (anon_sym_SLASH, ACTIONS 1155),
     (anon_sym_PERCENT, ACTIONS 1155), (anon_sym_TILDE_SLASH, ACTIONS 1155),
     (anon_sym_BANG, ACTIONS 1155), (anon_sym_is, ACTIONS 1153), (anon_sym_as, ACTIONS 1153),
     (anon_sym_DOT, ACTIONS 1155), (anon_sym_QMARK_DOT, ACTIONS 1155),
     (anon_sym_DOT_DOT, ACTIONS 1153), (anon_sym_QMARK_DOT_DOT, ACTIONS 1153),
     (anon_sym_SEMI, ACTIONS 1153), (anon_sym_EQ_GT, ACTIONS 1153),
     (anon_sym_when, ACTIONS 1153), (anon_sym_case, ACTIONS 1153), (anon_sym_else, ACTIONS 1153),
     (anon_sym_AMP_AMP, ACTIONS 1153), (anon_sym_PIPE_PIPE, ACTIONS 1153),
     (anon_sym_SLASH_SLASH, ACTIONS 3), (anon_sym_SLASH_STAR, ACTIONS 5),
     (anon_sym_SLASH_SLASH_SLASH, ACTIONS 7), (sym__block_comment, ACTIONS 9),
     (sym__documentation_block_comment, ACTIONS 11)]"

lemma row_ok_472: "table_row_ok 472 ts_parse_table_472"
  by (simp add: row_simps ts_parse_table_472_def)

definition ts_parse_table_473 :: table_row where
  "ts_parse_table_473 = [
     (sym__string_literal_double_quotes, STATE 627),
     (sym__string_literal_single_quotes, STATE 627),
     (sym__string_literal_double_quotes_multiple, STATE 627),
     (sym__string_literal_single_quotes_multiple, STATE 627),
     (sym__raw_string_literal_double_quotes, STATE 627),
     (sym__raw_string_literal_single_quotes, STATE 627),
     (sym__raw_string_literal_double_quotes_multiple, STATE 627),
     (sym__raw_string_literal_single_quotes_multiple, STATE 627), (sym_comment, STATE 473),
     (sym_documentation_comment, STATE 473), (aux_sym_string_literal_repeat1, STATE 473),
     (anon_sym_DQUOTE, ACTIONS 1157), (anon_sym_SQUOTE, ACTIONS 1160),
     (anon_sym_DQUOTE_DQUOTE_DQUOTE, ACTIONS 1163),
     (anon_sym_SQUOTE_SQUOTE_SQUOTE, ACTIONS 1166), (anon_sym_r_DQUOTE, ACTIONS 1169),
     (anon_sym_r_SQUOTE, ACTIONS 1172), (anon_sym_r_DQUOTE_DQUOTE_DQUOTE, ACTIONS 1175),
     (anon_sym_r_SQUOTE_SQUOTE_SQUOTE, ACTIONS 1178), (anon_sym_RBRACE, ACTIONS 1181),
     (anon_sym_LBRACK, ACTIONS 1181), (anon_sym_COMMA, ACTIONS 1181),
     (anon_sym_RBRACK, ACTIONS 1181), (anon_sym_COLON, ACTIONS 1181),
     (anon_sym_LPAREN, ACTIONS 1181), (anon_sym_RPAREN, ACTIONS 1181),
     (anon_sym_QMARK_QMARK, ACTIONS 1181), (anon_sym_QMARK, ACTIONS 1183),
     (sym_equality_operator, ACTIONS 1181), (anon_sym_LT, ACTIONS 1183),
     (anon_sym_GT, ACTIONS 1183), (anon_sym_LT_EQ, ACTIONS 1181), (anon_sym_GT_EQ, ACTIONS 1181),
     (anon_sym_PIPE, ACTIONS 1183), (anon_sym_CARET, ACTIONS 1181), (anon_sym_AMP, ACTIONS 1183),
     (anon_sym_LT_LT, ACTIONS 1181), (anon_sym_GT_GT, ACTIONS 1183),
     (anon_sym_GT_GT_GT, ACTIONS 1181), (sym__additive_operator, ACTIONS 1181),
     (anon_sym_STAR, ACTIONS 1181), (anon_sym_SLASH, ACTIONS 1183),
     (anon_sym_PERCENT, ACTIONS 1181), (anon_sym_TILDE_SLASH, ACTIONS 1181),
     (anon_sym_BANG, ACTIONS 1183), (anon_sym_is, ACTIONS 1181), (anon_sym_as, ACTIONS 1181),
     (anon_sym_DOT, ACTIONS 1183), (anon_sym_QMARK_DOT, ACTIONS 1183),
     (anon_sym_DOT_DOT, ACTIONS 1181), (anon_sym_QMARK_DOT_DOT, ACTIONS 1181),
     (anon_sym_SEMI, ACTIONS 1181), (anon_sym_EQ_GT, ACTIONS 1181),
     (anon_sym_when, ACTIONS 1181), (anon_sym_if, ACTIONS 1181), (anon_sym_case, ACTIONS 1181),
     (anon_sym_else, ACTIONS 1181), (anon_sym_show, ACTIONS 1181), (anon_sym_hide, ACTIONS 1181),
     (anon_sym_deferred, ACTIONS 1181), (anon_sym_AMP_AMP, ACTIONS 1181),
     (anon_sym_PIPE_PIPE, ACTIONS 1181), (anon_sym_SLASH_SLASH, ACTIONS 3),
     (anon_sym_SLASH_STAR, ACTIONS 5), (anon_sym_SLASH_SLASH_SLASH, ACTIONS 7),
     (sym__block_comment, ACTIONS 9), (sym__documentation_block_comment, ACTIONS 11)]"

lemma row_ok_473: "table_row_ok 473 ts_parse_table_473"
  by (simp add: row_simps ts_parse_table_473_def)

definition ts_parse_table_474 :: table_row where
  "ts_parse_table_474 = [
     (sym__string_literal_double_quotes, STATE 627),
     (sym__string_literal_single_quotes, STATE 627),
     (sym__string_literal_double_quotes_multiple, STATE 627),
     (sym__string_literal_single_quotes_multiple, STATE 627),
     (sym__raw_string_literal_double_quotes, STATE 627),
     (sym__raw_string_literal_single_quotes, STATE 627),
     (sym__raw_string_literal_double_quotes_multiple, STATE 627),
     (sym__raw_string_literal_single_quotes_multiple, STATE 627), (sym_comment, STATE 474),
     (sym_documentation_comment, STATE 474), (aux_sym_string_literal_repeat1, STATE 473),
     (anon_sym_DQUOTE, ACTIONS 83), (anon_sym_SQUOTE, ACTIONS 85),
     (anon_sym_DQUOTE_DQUOTE_DQUOTE, ACTIONS 87), (anon_sym_SQUOTE_SQUOTE_SQUOTE, ACTIONS 89),
     (anon_sym_r_DQUOTE, ACTIONS 91), (anon_sym_r_SQUOTE, ACTIONS 93),
     (anon_sym_r_DQUOTE_DQUOTE_DQUOTE, ACTIONS 95),
     (anon_sym_r_SQUOTE_SQUOTE_SQUOTE, ACTIONS 97), (anon_sym_RBRACE, ACTIONS 1185),
     (anon_sym_LBRACK, ACTIONS 1185), (anon_sym_COMMA, ACTIONS 1185),
     (anon_sym_RBRACK, ACTIONS 1185), (anon_sym_COLON, ACTIONS 1185),
     (anon_sym_LPAREN, ACTIONS 1185), (anon_sym_RPAREN, ACTIONS 1185),
     (anon_sym_QMARK_QMARK, ACTIONS 1185), (anon_sym_QMARK, ACTIONS 1187),
     (sym_equality_operator, ACTIONS 1185), (anon_sym_LT, ACTIONS 1187),
     (anon_sym_GT, ACTIONS 1187), (anon_sym_LT_EQ, ACTIONS 1185), (anon_sym_GT_EQ, ACTIONS 1185),
     (anon_sym_PIPE, ACTIONS 1187), (anon_sym_CARET, ACTIONS 1185), (anon_sym_AMP, ACTIONS 1187),
     (anon_sym_LT_LT, ACTIONS 1185), (anon_sym_GT_GT, ACTIONS 1187),
     (anon_sym_GT_GT_GT, ACTIONS 1185), (sym__additive_operator, ACTIONS 1185),
     (anon_sym_STAR, ACTIONS 1185), (anon_sym_SLASH, ACTIONS 1187),
     (anon_sym_PERCENT, ACTIONS 1185), (anon_sym_TILDE_SLASH, ACTIONS 1185),
     (anon_sym_BANG, ACTIONS 1187), (anon_sym_is, ACTIONS 1185), (anon_sym_as, ACTIONS 1185),
     (anon_sym_DOT, ACTIONS 1187), (anon_sym_QMARK_DOT, ACTIONS 1187),
     (anon_sym_DOT_DOT, ACTIONS 1185), (anon_sym_QMARK_DOT_DOT, ACTIONS 1185),
     (anon_sym_SEMI, ACTIONS 1185), (anon_sym_EQ_GT, ACTIONS 1185),
     (anon_sym_when, ACTIONS 1185), (anon_sym_if, ACTIONS 1185), (anon_sym_case, ACTIONS 1185),
     (anon_sym_else, ACTIONS 1185), (anon_sym_show, ACTIONS 1185), (anon_sym_hide, ACTIONS 1185),
     (anon_sym_deferred, ACTIONS 1185), (anon_sym_AMP_AMP, ACTIONS 1185),
     (anon_sym_PIPE_PIPE, ACTIONS 1185), (anon_sym_SLASH_SLASH, ACTIONS 3),
     (anon_sym_SLASH_STAR, ACTIONS 5), (anon_sym_SLASH_SLASH_SLASH, ACTIONS 7),
     (sym__block_comment, ACTIONS 9), (sym__documentation_block_comment, ACTIONS 11)]"

lemma row_ok_474: "table_row_ok 474 ts_parse_table_474"
  by (simp add: row_simps ts_parse_table_474_def)

definition ts_parse_table_475 :: table_row where
  "ts_parse_table_475 = [
     (sym__top_level_definition, STATE 1774), (sym_annotation, STATE 1361),
     (sym_enum_declaration, STATE 1769), (sym_type_alias, STATE 1769),
     (sym__class_modifiers, STATE 3195), (sym__mixin_class_modifiers, STATE 3373),
     (sym_class_definition, STATE 1769), (sym_extension_declaration, STATE 1769),
     (sym__metadata, STATE 687), (sym_mixin_declaration, STATE 1769),
     (sym_getter_signature, STATE 2207), (sym_setter_signature, STATE 2207),
     (sym__type, STATE 2433), (sym__type_not_function, STATE 1796),
     (sym__type_not_void_not_function, STATE 1896), (sym_function_type, STATE 1848),
     (aux_sym__function_type_tails, STATE 1605), (sym__function_type_tail, STATE 1704),
     (sym_record_type, STATE 1805), (sym__type_name, STATE 1530),
     (sym_inferred_type, STATE 2737), (sym_function_signature, STATE 2207),
     (sym__function_builtin_identifier, STATE 1463), (sym__get, STATE 2411),
     (sym_interface, STATE 3539), (sym_base, STATE 2767), (sym_abstract, STATE 2228),
     (sym_sealed, STATE 3539), (sym_mixin, STATE 3250), (sym__set, STATE 2377),
     (sym__typedef, STATE 2082), (sym_final_builtin, STATE 1989),
     (sym__late_builtin, STATE 1957), (sym__external_builtin, STATE 1818),
     (sym_comment, STATE 475), (sym_documentation_comment, STATE 475),
     (aux_sym_program_repeat4, STATE 479), (aux_sym__metadata_repeat1, STATE 1308),
     (ts_builtin_sym_end, ACTIONS 1033), (sym_identifier, ACTIONS 15),
     (anon_sym_LPAREN, ACTIONS 17), (anon_sym_AT, ACTIONS 143), (anon_sym_enum, ACTIONS 23),
     (anon_sym_final, ACTIONS 25), (anon_sym_inline, ACTIONS 27), (anon_sym_class, ACTIONS 29),
     (anon_sym_extension, ACTIONS 31), (sym_void_type, ACTIONS 33), (anon_sym_var, ACTIONS 35),
     (anon_sym_Function, ACTIONS 45), (anon_sym_get, ACTIONS 47),
     (anon_sym_interface, ACTIONS 51), (anon_sym_base, ACTIONS 53),
     (anon_sym_abstract, ACTIONS 55), (anon_sym_sealed, ACTIONS 57),
     (anon_sym_mixin, ACTIONS 59), (anon_sym_set, ACTIONS 61), (anon_sym_typedef, ACTIONS 63),
     (sym_const_builtin, ACTIONS 65), (anon_sym_late, ACTIONS 67),
     (anon_sym_external, ACTIONS 69), (anon_sym_SLASH_SLASH, ACTIONS 3),
     (anon_sym_SLASH_STAR, ACTIONS 5), (anon_sym_SLASH_SLASH_SLASH, ACTIONS 7),
     (sym__block_comment, ACTIONS 9), (sym__documentation_block_comment, ACTIONS 11)]"

lemma row_ok_475: "table_row_ok 475 ts_parse_table_475"
  by (simp add: row_simps ts_parse_table_475_def)

definition ts_parse_table_476 :: table_row where
  "ts_parse_table_476 = [
     (sym__top_level_definition, STATE 1774), (sym_annotation, STATE 1361),
     (sym_enum_declaration, STATE 1769), (sym_type_alias, STATE 1769),
     (sym__class_modifiers, STATE 3195), (sym__mixin_class_modifiers, STATE 3373),
     (sym_class_definition, STATE 1769), (sym_extension_declaration, STATE 1769),
     (sym__metadata, STATE 687), (sym_mixin_declaration, STATE 1769),
     (sym_getter_signature, STATE 2207), (sym_setter_signature, STATE 2207),
     (sym__type, STATE 2433), (sym__type_not_function, STATE 1796),
     (sym__type_not_void_not_function, STATE 1896), (sym_function_type, STATE 1848),
     (aux_sym__function_type_tails, STATE 1605), (sym__function_type_tail, STATE 1704),
     (sym_record_type, STATE 1805), (sym__type_name, STATE 1530),
     (sym_inferred_type, STATE 2737), (sym_function_signature, STATE 2207),
     (sym__function_builtin_identifier, STATE 1463), (sym__get, STATE 2411),
     (sym_interface, STATE 3539), (sym_base, STATE 2767), (sym_abstract, STATE 2228),
     (sym_sealed, STATE 3539), (sym_mixin, STATE 3250), (sym__set, STATE 2377),
     (sym__typedef, STATE 2082), (sym_final_builtin, STATE 1989),
     (sym__late_builtin, STATE 1957), (sym__external_builtin, STATE 1818),
     (sym_comment, STATE 476), (sym_documentation_comment, STATE 476),
     (aux_sym_program_repeat4, STATE 479), (aux_sym__metadata_repeat1, STATE 1308),
     (ts_builtin_sym_end, ACTIONS 1037), (sym_identifier, ACTIONS 15),
     (anon_sym_LPAREN, ACTIONS 17), (anon_sym_AT, ACTIONS 143), (anon_sym_enum, ACTIONS 23),
     (anon_sym_final, ACTIONS 25), (anon_sym_inline, ACTIONS 27), (anon_sym_class, ACTIONS 29),
     (anon_sym_extension, ACTIONS 31), (sym_void_type, ACTIONS 33), (anon_sym_var, ACTIONS 35),
     (anon_sym_Function, ACTIONS 45), (anon_sym_get, ACTIONS 47),
     (anon_sym_interface, ACTIONS 51), (anon_sym_base, ACTIONS 53),
     (anon_sym_abstract, ACTIONS 55), (anon_sym_sealed, ACTIONS 57),
     (anon_sym_mixin, ACTIONS 59), (anon_sym_set, ACTIONS 61), (anon_sym_typedef, ACTIONS 63),
     (sym_const_builtin, ACTIONS 65), (anon_sym_late, ACTIONS 67),
     (anon_sym_external, ACTIONS 69), (anon_sym_SLASH_SLASH, ACTIONS 3),
     (anon_sym_SLASH_STAR, ACTIONS 5), (anon_sym_SLASH_SLASH_SLASH, ACTIONS 7),
     (sym__block_comment, ACTIONS 9), (sym__documentation_block_comment, ACTIONS 11)]"

lemma row_ok_476: "table_row_ok 476 ts_parse_table_476"
  by (simp add: row_simps ts_parse_table_476_def)

definition ts_parse_table_477 :: table_row where
  "ts_parse_table_477 = [
     (sym__top_level_definition, STATE 1774), (sym_annotation, STATE 1361),
     (sym_enum_declaration, STATE 1769), (sym_type_alias, STATE 1769),
     (sym__class_modifiers, STATE 3195), (sym__mixin_class_modifiers, STATE 3373),
     (sym_class_definition, STATE 1769), (sym_extension_declaration, STATE 1769),
     (sym__metadata, STATE 687), (sym_mixin_declaration, STATE 1769),
     (sym_getter_signature, STATE 2207), (sym_setter_signature, STATE 2207),
     (sym__type, STATE 2433), (sym__type_not_function, STATE 1796),
     (sym__type_not_void_not_function, STATE 1896), (sym_function_type, STATE 1848),
     (aux_sym__function_type_tails, STATE 1605), (sym__function_type_tail, STATE 1704),
     (sym_record_type, STATE 1805), (sym__type_name, STATE 1530),
     (sym_inferred_type, STATE 2737), (sym_function_signature, STATE 2207),
     (sym__function_builtin_identifier, STATE 1463), (sym__get, STATE 2411),
     (sym_interface, STATE 3539), (sym_base, STATE 2767), (sym_abstract, STATE 2228),
     (sym_sealed, STATE 3539), (sym_mixin, STATE 3250), (sym__set, STATE 2377),
     (sym__typedef, STATE 2082), (sym_final_builtin, STATE 1989),
     (sym__late_builtin, STATE 1957), (sym__external_builtin, STATE 1818),
     (sym_comment, STATE 477), (sym_documentation_comment, STATE 477),
     (aux_sym_program_repeat4, STATE 479), (aux_sym__metadata_repeat1, STATE 1308),
     (ts_builtin_sym_end, ACTIONS 1063), (sym_identifier, ACTIONS 15),
     (anon_sym_LPAREN, ACTIONS 17), (anon_sym_AT, ACTIONS 143), (anon_sym_enum, ACTIONS 23),
     (anon_sym_final, ACTIONS 25), (anon_sym_inline, ACTIONS 27), (anon_sym_class, ACTIONS 29),
     (anon_sym_extension, ACTIONS 31), (sym_void_type, ACTIONS 33), (anon_sym_var, ACTIONS 35),
     (anon_sym_Function, ACTIONS 45), (anon_sym_get, ACTIONS 47),
     (anon_sym_interface, ACTIONS 51), (anon_sym_base, ACTIONS 53),
     (anon_sym_abstract, ACTIONS 55), (anon_sym_sealed, ACTIONS 57),
     (anon_sym_mixin, ACTIONS 59), (anon_sym_set, ACTIONS 61), (anon_sym_typedef, ACTIONS 63),
     (sym_const_builtin, ACTIONS 65), (anon_sym_late, ACTIONS 67),
     (anon_sym_external, ACTIONS 69), (anon_sym_SLASH_SLASH, ACTIONS 3),
     (anon_sym_SLASH_STAR, ACTIONS 5), (anon_sym_SLASH_SLASH_SLASH, ACTIONS 7),
     (sym__block_comment, ACTIONS 9), (sym__documentation_block_comment, ACTIONS 11)]"

lemma row_ok_477: "table_row_ok 477 ts_parse_table_477"
  by (simp add: row_simps ts_parse_table_477_def)

definition ts_parse_table_478 :: table_row where
  "ts_parse_table_478 = [
     (sym__top_level_definition, STATE 1774), (sym_annotation, STATE 1361),
     (sym_enum_declaration, STATE 1769), (sym_type_alias, STATE 1769),
     (sym__class_modifiers, STATE 3195), (sym__mixin_class_modifiers, STATE 3373),
     (sym_class_definition, STATE 1769), (sym_extension_declaration, STATE 1769),
     (sym__metadata, STATE 687), (sym_mixin_declaration, STATE 1769),
     (sym_getter_signature, STATE 2207), (sym_setter_signature, STATE 2207),
     (sym__type, STATE 2433), (sym__type_not_function, STATE 1796),
     (sym__type_not_void_not_function, STATE 1896), (sym_function_type, STATE 1848),
     (aux_sym__function_type_tails, STATE 1605), (sym__function_type_tail, STATE 1704),
     (sym_record_type, STATE 1805), (sym__type_name, STATE 1530),
     (sym_inferred_type, STATE 2737), (sym_function_signature, STATE 2207),
     (sym__function_builtin_identifier, STATE 1463), (sym__get, STATE 2411),
     (sym_interface, STATE 3539), (sym_base, STATE 2767), (sym_abstract, STATE 2228),
     (sym_sealed, STATE 3539), (sym_mixin, STATE 3250), (sym__set, STATE 2377),
     (sym__typedef, STATE 2082), (sym_final_builtin, STATE 1989),
     (sym__late_builtin, STATE 1957), (sym__external_builtin, STATE 1818),
     (sym_comment, STATE 478), (sym_documentation_comment, STATE 478),
     (aux_sym_program_repeat4, STATE 479), (aux_sym__metadata_repeat1, STATE 1308),
     (ts_builtin_sym_end, ACTIONS 1035), (sym_identifier, ACTIONS 15),
     (anon_sym_LPAREN, ACTIONS 17), (anon_sym_AT, ACTIONS 143), (anon_sym_enum, ACTIONS 23),
     (anon_sym_final, ACTIONS 25), (anon_sym_inline, ACTIONS 27), (anon_sym_class, ACTIONS 29),
     (anon_sym_extension, ACTIONS 31), (sym_void_type, ACTIONS 33), (anon_sym_var, ACTIONS 35),
     (anon_sym_Function, ACTIONS 45), (anon_sym_get, ACTIONS 47),
     (anon_sym_interface, ACTIONS 51), (anon_sym_base, ACTIONS 53),
     (anon_sym_abstract, ACTIONS 55), (anon_sym_sealed, ACTIONS 57),
     (anon_sym_mixin, ACTIONS 59), (anon_sym_set, ACTIONS 61), (anon_sym_typedef, ACTIONS 63),
     (sym_const_builtin, ACTIONS 65), (anon_sym_late, ACTIONS 67),
     (anon_sym_external, ACTIONS 69), (anon_sym_SLASH_SLASH, ACTIONS 3),
     (anon_sym_SLASH_STAR, ACTIONS 5), (anon_sym_SLASH_SLASH_SLASH, ACTIONS 7),
     (sym__block_comment, ACTIONS 9), (sym__documentation_block_comment, ACTIONS 11)]"

lemma row_ok_478: "table_row_ok 478 ts_parse_table_478"
  by (simp add: row_simps ts_parse_table_478_def)

definition ts_parse_table_479 :: table_row where
  "ts_parse_table_479 = [
     (sym__top_level_definition, STATE 1774), (sym_annotation, STATE 1361),
     (sym_enum_declaration, STATE 1769), (sym_type_alias, STATE 1769),
     (sym__class_modifiers, STATE 3195), (sym__mixin_class_modifiers, STATE 3373),
     (sym_class_definition, STATE 1769), (sym_extension_declaration, STATE 1769),
     (sym__metadata, STATE 687), (sym_mixin_declaration, STATE 1769),
     (sym_getter_signature, STATE 2207), (sym_setter_signature, STATE 2207),
     (sym__type, STATE 2433), (sym__type_not_function, STATE 1796),
     (sym__type_not_void_not_function, STATE 1896), (sym_function_type, STATE 1848),
     (aux_sym__function_type_tails, STATE 1605), (sym__function_type_tail, STATE 1704),
     (sym_record_type, STATE 1805), (sym__type_name, STATE 1530),
     (sym_inferred_type, STATE 2737), (sym_function_signature, STATE 2207),
     (sym__function_builtin_identifier, STATE 1463), (sym__get, STATE 2411),
     (sym_interface, STATE 3539), (sym_base, STATE 2767), (sym_abstract, STATE 2228),
     (sym_sealed, STATE 3539), (sym_mixin, STATE 3250), (sym__set, STATE 2377),
     (sym__typedef, STATE 2082), (sym_final_builtin, STATE 1989),
     (sym__late_builtin, STATE 1957), (sym__external_builtin, STATE 1818),
     (sym_comment, STATE 479), (sym_documentation_comment, STATE 479),
     (aux_sym_program_repeat4, STATE 479), (aux_sym__metadata_repeat1, STATE 1308),
     (ts_builtin_sym_end, ACTIONS 1189), (sym_identifier, ACTIONS 1191),
     (anon_sym_LPAREN, ACTIONS 1194), (anon_sym_AT, ACTIONS 1197), (anon_sym_enum, ACTIONS 1200),
     (anon_sym_final, ACTIONS 1203), (anon_sym_inline, ACTIONS 1206),
     (anon_sym_class, ACTIONS 1209), (anon_sym_extension, ACTIONS 1212),
     (sym_void_type, ACTIONS 1215), (anon_sym_var, ACTIONS 1218),
     (anon_sym_Function, ACTIONS 1221), (anon_sym_get, ACTIONS 1224),
     (anon_sym_interface, ACTIONS 1227), (anon_sym_base, ACTIONS 1230),
     (anon_sym_abstract, ACTIONS 1233), (anon_sym_sealed, ACTIONS 1236),
     (anon_sym_mixin, ACTIONS 1239), (anon_sym_set, ACTIONS 1242),
     (anon_sym_typedef, ACTIONS 1245), (sym_const_builtin, ACTIONS 1248),
     (anon_sym_late, ACTIONS 1251), (anon_sym_external, ACTIONS 1254),
     (anon_sym_SLASH_SLASH, ACTIONS 3), (anon_sym_SLASH_STAR, ACTIONS 5),
     (anon_sym_SLASH_SLASH_SLASH, ACTIONS 7), (sym__block_comment, ACTIONS 9),
     (sym__documentation_block_comment, ACTIONS 11)]"

lemma row_ok_479: "table_row_ok 479 ts_parse_table_479"
  by (simp add: row_simps ts_parse_table_479_def)

definition ts_parse_table_480 :: table_row where
  "ts_parse_table_480 = [
     (sym__top_level_definition, STATE 1774), (sym_annotation, STATE 1361),
     (sym_enum_declaration, STATE 1769), (sym_type_alias, STATE 1769),
     (sym__class_modifiers, STATE 3195), (sym__mixin_class_modifiers, STATE 3373),
     (sym_class_definition, STATE 1769), (sym_extension_declaration, STATE 1769),
     (sym__metadata, STATE 687), (sym_mixin_declaration, STATE 1769),
     (sym_getter_signature, STATE 2207), (sym_setter_signature, STATE 2207),
     (sym__type, STATE 2433), (sym__type_not_function, STATE 1796),
     (sym__type_not_void_not_function, STATE 1896), (sym_function_type, STATE 1848),
     (aux_sym__function_type_tails, STATE 1605), (sym__function_type_tail, STATE 1704),
     (sym_record_type, STATE 1805), (sym__type_name, STATE 1530),
     (sym_inferred_type, STATE 2737), (sym_function_signature, STATE 2207),
     (sym__function_builtin_identifier, STATE 1463), (sym__get, STATE 2411),
     (sym_interface, STATE 3539), (sym_base, STATE 2767), (sym_abstract, STATE 2228),
     (sym_sealed, STATE 3539), (sym_mixin, STATE 3250), (sym__set, STATE 2377),
     (sym__typedef, STATE 2082), (sym_final_builtin, STATE 1989),
     (sym__late_builtin, STATE 1957), (sym__external_builtin, STATE 1818),
     (sym_comment, STATE 480), (sym_documentation_comment, STATE 480),
     (aux_sym_program_repeat4, STATE 479), (aux_sym__metadata_repeat1, STATE 1308),
     (ts_builtin_sym_end, ACTIONS 1141), (sym_identifier, ACTIONS 15),
     (anon_sym_LPAREN, ACTIONS 17), (anon_sym_AT, ACTIONS 143), (anon_sym_enum, ACTIONS 23),
     (anon_sym_final, ACTIONS 25), (anon_sym_inline, ACTIONS 27), (anon_sym_class, ACTIONS 29),
     (anon_sym_extension, ACTIONS 31), (sym_void_type, ACTIONS 33), (anon_sym_var, ACTIONS 35),
     (anon_sym_Function, ACTIONS 45), (anon_sym_get, ACTIONS 47),
     (anon_sym_interface, ACTIONS 51), (anon_sym_base, ACTIONS 53),
     (anon_sym_abstract, ACTIONS 55), (anon_sym_sealed, ACTIONS 57),
     (anon_sym_mixin, ACTIONS 59), (anon_sym_set, ACTIONS 61), (anon_sym_typedef, ACTIONS 63),
     (sym_const_builtin, ACTIONS 65), (anon_sym_late, ACTIONS 67),
     (anon_sym_external, ACTIONS 69), (anon_sym_SLASH_SLASH, ACTIONS 3),
     (anon_sym_SLASH_STAR, ACTIONS 5), (anon_sym_SLASH_SLASH_SLASH, ACTIONS 7),
     (sym__block_comment, ACTIONS 9), (sym__documentation_block_comment, ACTIONS 11)]"

lemma row_ok_480: "table_row_ok 480 ts_parse_table_480"
  by (simp add: row_simps ts_parse_table_480_def)

definition ts_parse_table_481 :: table_row where
  "ts_parse_table_481 = [
     (aux_sym__if_null_expression, STATE 884), (sym_relational_operator, STATE 329),
     (sym_shift_operator, STATE 343), (sym__shift_operator, STATE 1397),
     (sym_additive_operator, STATE 368), (sym_type_test, STATE 957),
     (sym_is_operator, STATE 2089), (sym_type_cast, STATE 956), (sym_as_operator, STATE 2090),
     (sym_cascade_section, STATE 914), (sym_logical_and_operator, STATE 366),
     (sym_logical_or_operator, STATE 365), (sym_comment, STATE 481),
     (sym_documentation_comment, STATE 481), (aux_sym__expression_repeat1, STATE 819),
     (aux_sym_logical_or_expression_repeat1, STATE 834),
     (aux_sym_logical_and_expression_repeat1, STATE 835),
     (aux_sym_bitwise_or_expression_repeat1, STATE 839),
     (aux_sym_bitwise_xor_expression_repeat1, STATE 840),
     (aux_sym_bitwise_and_expression_repeat1, STATE 841),
     (aux_sym_shift_expression_repeat1, STATE 792),
     (aux_sym_additive_expression_repeat1, STATE 833), (anon_sym_RBRACE, ACTIONS 1257),
     (anon_sym_LBRACK, ACTIONS 1257), (anon_sym_COMMA, ACTIONS 1257),
     (anon_sym_RBRACK, ACTIONS 1257), (anon_sym_COLON, ACTIONS 1257),
     (anon_sym_LPAREN, ACTIONS 1257), (anon_sym_RPAREN, ACTIONS 1257),
     (anon_sym_QMARK_QMARK, ACTIONS 1259), (anon_sym_QMARK, ACTIONS 1261),
     (sym_equality_operator, ACTIONS 1263), (anon_sym_LT, ACTIONS 400),
     (anon_sym_GT, ACTIONS 400), (anon_sym_LT_EQ, ACTIONS 402), (anon_sym_GT_EQ, ACTIONS 402),
     (anon_sym_PIPE, ACTIONS 1265), (anon_sym_CARET, ACTIONS 1267), (anon_sym_AMP, ACTIONS 1269),
     (anon_sym_LT_LT, ACTIONS 1271), (anon_sym_GT_GT, ACTIONS 1273),
     (anon_sym_GT_GT_GT, ACTIONS 1271), (sym__additive_operator, ACTIONS 1275),
     (anon_sym_STAR, ACTIONS 1257), (anon_sym_SLASH, ACTIONS 1277),
     (anon_sym_PERCENT, ACTIONS 1257), (anon_sym_TILDE_SLASH, ACTIONS 1257),
     (anon_sym_BANG, ACTIONS 1277), (anon_sym_is, ACTIONS 1279), (anon_sym_as, ACTIONS 1281),
     (anon_sym_DOT, ACTIONS 1277), (anon_sym_QMARK_DOT, ACTIONS 1277),
     (anon_sym_DOT_DOT, ACTIONS 1283), (anon_sym_QMARK_DOT_DOT, ACTIONS 1283),
     (anon_sym_SEMI, ACTIONS 1257), (anon_sym_EQ_GT, ACTIONS 1257),
     (anon_sym_when, ACTIONS 1257), (anon_sym_case, ACTIONS 1257), (anon_sym_else, ACTIONS 1257),
     (anon_sym_AMP_AMP, ACTIONS 1286), (anon_sym_PIPE_PIPE, ACTIONS 1288),
     (anon_sym_SLASH_SLASH, ACTIONS 3), (anon_sym_SLASH_STAR, ACTIONS 5),
     (anon_sym_SLASH_SLASH_SLASH, ACTIONS 7), (sym__block_comment, ACTIONS 9),
     (sym__documentation_block_comment, ACTIONS 11)]"

lemma row_ok_481: "table_row_ok 481 ts_parse_table_481"
  by (simp add: row_simps ts_parse_table_481_def)

definition ts_parse_table_482 :: table_row where
  "ts_parse_table_482 = [
     (sym__top_level_definition, STATE 1774), (sym_annotation, STATE 1361),
     (sym_enum_declaration, STATE 1769), (sym_type_alias, STATE 1769),
     (sym__class_modifiers, STATE 3195), (sym__mixin_class_modifiers, STATE 3373),
     (sym_class_definition, STATE 1769), (sym_extension_declaration, STATE 1769),
     (sym__metadata, STATE 687), (sym_mixin_declaration, STATE 1769),
     (sym_getter_signature, STATE 2207), (sym_setter_signature, STATE 2207),
     (sym__type, STATE 2433), (sym__type_not_function, STATE 1796),
     (sym__type_not_void_not_function, STATE 1896), (sym_function_type, STATE 1848),
     (aux_sym__function_type_tails, STATE 1605), (sym__function_type_tail, STATE 1704),
     (sym_record_type, STATE 1805), (sym__type_name, STATE 1530),
     (sym_inferred_type, STATE 2737), (sym_function_signature, STATE 2207),
     (sym__function_builtin_identifier, STATE 1463), (sym__get, STATE 2411),
     (sym_interface, STATE 3539), (sym_base, STATE 2767), (sym_abstract, STATE 2228),
     (sym_sealed, STATE 3539), (sym_mixin, STATE 3250), (sym__set, STATE 2377),
     (sym__typedef, STATE 2082), (sym_final_builtin, STATE 1989),
     (sym__late_builtin, STATE 1957), (sym__external_builtin, STATE 1818),
     (sym_comment, STATE 482), (sym_documentation_comment, STATE 482),
     (aux_sym_program_repeat4, STATE 479), (aux_sym__metadata_repeat1, STATE 1308),
     (ts_builtin_sym_end, ACTIONS 1290), (sym_identifier, ACTIONS 15),
     (anon_sym_LPAREN, ACTIONS 17), (anon_sym_AT, ACTIONS 143), (anon_sym_enum, ACTIONS 23),
     (anon_sym_final, ACTIONS 25), (anon_sym_inline, ACTIONS 27), (anon_sym_class, ACTIONS 29),
     (anon_sym_extension, ACTIONS 31), (sym_void_type, ACTIONS 33), (anon_sym_var, ACTIONS 35),
     (anon_sym_Function, ACTIONS 45), (anon_sym_get, ACTIONS 47),
     (anon_sym_interface, ACTIONS 51), (anon_sym_base, ACTIONS 53),
     (anon_sym_abstract, ACTIONS 55), (anon_sym_sealed, ACTIONS 57),
     (anon_sym_mixin, ACTIONS 59), (anon_sym_set, ACTIONS 61), (anon_sym_typedef, ACTIONS 63),
     (sym_const_builtin, ACTIONS 65), (anon_sym_late, ACTIONS 67),
     (anon_sym_external, ACTIONS 69), (anon_sym_SLASH_SLASH, ACTIONS 3),
     (anon_sym_SLASH_STAR, ACTIONS 5), (anon_sym_SLASH_SLASH_SLASH, ACTIONS 7),
     (sym__block_comment, ACTIONS 9), (sym__documentation_block_comment, ACTIONS 11)]"

lemma row_ok_482: "table_row_ok 482 ts_parse_table_482"
  by (simp add: row_simps ts_parse_table_482_def)

definition ts_parse_table_483 :: table_row where
  "ts_parse_table_483 = [
     (sym__cascade_subsection, STATE 580), (sym_index_selector, STATE 581),
     (sym_unconditional_assignable_selector, STATE 602),
     (sym_conditional_assignable_selector, STATE 602), (sym__assignable_selector, STATE 499),
     (sym_comment, STATE 483), (sym_documentation_comment, STATE 483),
     (aux_sym_cascade_section_repeat2, STATE 483), (anon_sym_RBRACE, ACTIONS 1292),
     (anon_sym_LBRACK, ACTIONS 1294), (anon_sym_COMMA, ACTIONS 1292),
     (anon_sym_RBRACK, ACTIONS 1292), (anon_sym_COLON, ACTIONS 1292),
     (anon_sym_LPAREN, ACTIONS 1292), (anon_sym_RPAREN, ACTIONS 1292),
     (anon_sym_EQ, ACTIONS 1297), (anon_sym_PLUS_EQ, ACTIONS 1292),
     (anon_sym_DASH_EQ, ACTIONS 1292), (anon_sym_STAR_EQ, ACTIONS 1292),
     (anon_sym_SLASH_EQ, ACTIONS 1292), (anon_sym_PERCENT_EQ, ACTIONS 1292),
     (anon_sym_TILDE_SLASH_EQ, ACTIONS 1292), (anon_sym_LT_LT_EQ, ACTIONS 1292),
     (anon_sym_GT_GT_EQ, ACTIONS 1292), (anon_sym_GT_GT_GT_EQ, ACTIONS 1292),
     (anon_sym_AMP_EQ, ACTIONS 1292), (anon_sym_CARET_EQ, ACTIONS 1292),
     (anon_sym_PIPE_EQ, ACTIONS 1292), (anon_sym_QMARK_QMARK_EQ, ACTIONS 1292),
     (anon_sym_QMARK_QMARK, ACTIONS 1297), (anon_sym_QMARK, ACTIONS 1299),
     (sym_equality_operator, ACTIONS 1292), (anon_sym_LT, ACTIONS 1297),
     (anon_sym_GT, ACTIONS 1297), (anon_sym_LT_EQ, ACTIONS 1292), (anon_sym_GT_EQ, ACTIONS 1292),
     (anon_sym_PIPE, ACTIONS 1297), (anon_sym_CARET, ACTIONS 1297), (anon_sym_AMP, ACTIONS 1297),
     (anon_sym_LT_LT, ACTIONS 1297), (anon_sym_GT_GT, ACTIONS 1297),
     (anon_sym_GT_GT_GT, ACTIONS 1297), (sym__additive_operator, ACTIONS 1297),
     (anon_sym_STAR, ACTIONS 1297), (anon_sym_SLASH, ACTIONS 1297),
     (anon_sym_PERCENT, ACTIONS 1297), (anon_sym_TILDE_SLASH, ACTIONS 1297),
     (anon_sym_BANG, ACTIONS 1297), (anon_sym_is, ACTIONS 1292), (anon_sym_as, ACTIONS 1292),
     (anon_sym_DOT, ACTIONS 1302), (anon_sym_QMARK_DOT, ACTIONS 1305),
     (anon_sym_DOT_DOT, ACTIONS 1292), (anon_sym_QMARK_DOT_DOT, ACTIONS 1292),
     (anon_sym_SEMI, ACTIONS 1292), (anon_sym_EQ_GT, ACTIONS 1292),
     (anon_sym_when, ACTIONS 1292), (anon_sym_case, ACTIONS 1292), (anon_sym_else, ACTIONS 1292),
     (anon_sym_AMP_AMP, ACTIONS 1292), (anon_sym_PIPE_PIPE, ACTIONS 1292),
     (anon_sym_SLASH_SLASH, ACTIONS 3), (anon_sym_SLASH_STAR, ACTIONS 5),
     (anon_sym_SLASH_SLASH_SLASH, ACTIONS 7), (sym__block_comment, ACTIONS 9),
     (sym__documentation_block_comment, ACTIONS 11)]"

lemma row_ok_483: "table_row_ok 483 ts_parse_table_483"
  by (simp add: row_simps ts_parse_table_483_def)

definition ts_parse_table_484 :: table_row where
  "ts_parse_table_484 = [
     (sym_comment, STATE 484), (sym_documentation_comment, STATE 484),
     (sym_identifier, ACTIONS 1308), (anon_sym_POUND, ACTIONS 1310),
     (sym_decimal_integer_literal, ACTIONS 1308), (sym_hex_integer_literal, ACTIONS 1310),
     (sym_decimal_floating_point_literal, ACTIONS 1308), (anon_sym_true, ACTIONS 1308),
     (anon_sym_false, ACTIONS 1308), (anon_sym_DQUOTE, ACTIONS 1308),
     (anon_sym_SQUOTE, ACTIONS 1308), (anon_sym_DQUOTE_DQUOTE_DQUOTE, ACTIONS 1310),
     (anon_sym_SQUOTE_SQUOTE_SQUOTE, ACTIONS 1310), (anon_sym_r_DQUOTE, ACTIONS 1308),
     (anon_sym_r_SQUOTE, ACTIONS 1308), (anon_sym_r_DQUOTE_DQUOTE_DQUOTE, ACTIONS 1310),
     (anon_sym_r_SQUOTE_SQUOTE_SQUOTE, ACTIONS 1310), (anon_sym_LBRACE, ACTIONS 1310),
     (anon_sym_RBRACE, ACTIONS 1310), (anon_sym_LBRACK, ACTIONS 1310),
     (anon_sym_null, ACTIONS 1308), (anon_sym_LPAREN, ACTIONS 1310),
     (anon_sym_throw, ACTIONS 1308), (anon_sym_LT, ACTIONS 1310),
     (sym_increment_operator, ACTIONS 1310), (sym_minus_operator, ACTIONS 1308),
     (anon_sym_BANG, ACTIONS 1310), (anon_sym_TILDE, ACTIONS 1310),
     (anon_sym_await, ACTIONS 1308), (anon_sym_switch, ACTIONS 1308),
     (anon_sym_default, ACTIONS 1308), (anon_sym_do, ACTIONS 1308),
     (anon_sym_while, ACTIONS 1308), (anon_sym_continue, ACTIONS 1308),
     (anon_sym_yield, ACTIONS 1308), (anon_sym_return, ACTIONS 1308),
     (anon_sym_on, ACTIONS 1308), (anon_sym_try, ACTIONS 1308), (anon_sym_catch, ACTIONS 1308),
     (anon_sym_finally, ACTIONS 1308), (anon_sym_if, ACTIONS 1308),
     (anon_sym_case, ACTIONS 1308), (anon_sym_else, ACTIONS 1308), (anon_sym_for, ACTIONS 1308),
     (anon_sym_AT, ACTIONS 1310), (anon_sym_final, ACTIONS 1308), (sym_void_type, ACTIONS 1308),
     (anon_sym_var, ACTIONS 1308), (sym_break_builtin, ACTIONS 1308),
     (sym_assert_builtin, ACTIONS 1308), (sym_rethrow_builtin, ACTIONS 1308),
     (anon_sym_covariant, ACTIONS 1308), (anon_sym_Function, ACTIONS 1308),
     (anon_sym_get, ACTIONS 1308), (anon_sym_set, ACTIONS 1308), (anon_sym_new, ACTIONS 1308),
     (sym_const_builtin, ACTIONS 1308), (anon_sym_late, ACTIONS 1308),
     (anon_sym_this, ACTIONS 1308), (anon_sym_super, ACTIONS 1308),
     (anon_sym_SLASH_SLASH, ACTIONS 3), (anon_sym_SLASH_STAR, ACTIONS 5),
     (anon_sym_SLASH_SLASH_SLASH, ACTIONS 7), (sym__block_comment, ACTIONS 9),
     (sym__documentation_block_comment, ACTIONS 11)]"

lemma row_ok_484: "table_row_ok 484 ts_parse_table_484"
  by (simp add: row_simps ts_parse_table_484_def)

definition ts_parse_table_485 :: table_row where
  "ts_parse_table_485 = [
     (sym_comment, STATE 485), (sym_documentation_comment, STATE 485),
     (sym_identifier, ACTIONS 973), (anon_sym_POUND, ACTIONS 975),
     (sym_decimal_integer_literal, ACTIONS 973), (sym_hex_integer_literal, ACTIONS 975),
     (sym_decimal_floating_point_literal, ACTIONS 973), (anon_sym_true, ACTIONS 973),
     (anon_sym_false, ACTIONS 973), (anon_sym_DQUOTE, ACTIONS 973),
     (anon_sym_SQUOTE, ACTIONS 973), (anon_sym_DQUOTE_DQUOTE_DQUOTE, ACTIONS 975),
     (anon_sym_SQUOTE_SQUOTE_SQUOTE, ACTIONS 975), (anon_sym_r_DQUOTE, ACTIONS 973),
     (anon_sym_r_SQUOTE, ACTIONS 973), (anon_sym_r_DQUOTE_DQUOTE_DQUOTE, ACTIONS 975),
     (anon_sym_r_SQUOTE_SQUOTE_SQUOTE, ACTIONS 975), (anon_sym_LBRACE, ACTIONS 975),
     (anon_sym_RBRACE, ACTIONS 975), (anon_sym_LBRACK, ACTIONS 975),
     (anon_sym_null, ACTIONS 973), (anon_sym_LPAREN, ACTIONS 975), (anon_sym_throw, ACTIONS 973),
     (anon_sym_LT, ACTIONS 975), (sym_increment_operator, ACTIONS 975),
     (sym_minus_operator, ACTIONS 973), (anon_sym_BANG, ACTIONS 975),
     (anon_sym_TILDE, ACTIONS 975), (anon_sym_await, ACTIONS 973),
     (anon_sym_switch, ACTIONS 973), (anon_sym_default, ACTIONS 973), (anon_sym_do, ACTIONS 973),
     (anon_sym_while, ACTIONS 973), (anon_sym_continue, ACTIONS 973),
     (anon_sym_yield, ACTIONS 973), (anon_sym_return, ACTIONS 973), (anon_sym_on, ACTIONS 973),
     (anon_sym_try, ACTIONS 973), (anon_sym_catch, ACTIONS 973), (anon_sym_finally, ACTIONS 973),
     (anon_sym_if, ACTIONS 973), (anon_sym_case, ACTIONS 973), (anon_sym_else, ACTIONS 973),
     (anon_sym_for, ACTIONS 973), (anon_sym_AT, ACTIONS 975), (anon_sym_final, ACTIONS 973),
     (sym_void_type, ACTIONS 973), (anon_sym_var, ACTIONS 973), (sym_break_builtin, ACTIONS 973),
     (sym_assert_builtin, ACTIONS 973), (sym_rethrow_builtin, ACTIONS 973),
     (anon_sym_covariant, ACTIONS 973), (anon_sym_Function, ACTIONS 973),
     (anon_sym_get, ACTIONS 973), (anon_sym_set, ACTIONS 973), (anon_sym_new, ACTIONS 973),
     (sym_const_builtin, ACTIONS 973), (anon_sym_late, ACTIONS 973),
     (anon_sym_this, ACTIONS 973), (anon_sym_super, ACTIONS 973),
     (anon_sym_SLASH_SLASH, ACTIONS 3), (anon_sym_SLASH_STAR, ACTIONS 5),
     (anon_sym_SLASH_SLASH_SLASH, ACTIONS 7), (sym__block_comment, ACTIONS 9),
     (sym__documentation_block_comment, ACTIONS 11)]"

lemma row_ok_485: "table_row_ok 485 ts_parse_table_485"
  by (simp add: row_simps ts_parse_table_485_def)

definition ts_parse_table_486 :: table_row where
  "ts_parse_table_486 = [
     (sym_comment, STATE 486), (sym_documentation_comment, STATE 486),
     (sym_identifier, ACTIONS 1312), (anon_sym_POUND, ACTIONS 1314),
     (sym_decimal_integer_literal, ACTIONS 1312), (sym_hex_integer_literal, ACTIONS 1314),
     (sym_decimal_floating_point_literal, ACTIONS 1312), (anon_sym_true, ACTIONS 1312),
     (anon_sym_false, ACTIONS 1312), (anon_sym_DQUOTE, ACTIONS 1312),
     (anon_sym_SQUOTE, ACTIONS 1312), (anon_sym_DQUOTE_DQUOTE_DQUOTE, ACTIONS 1314),
     (anon_sym_SQUOTE_SQUOTE_SQUOTE, ACTIONS 1314), (anon_sym_r_DQUOTE, ACTIONS 1312),
     (anon_sym_r_SQUOTE, ACTIONS 1312), (anon_sym_r_DQUOTE_DQUOTE_DQUOTE, ACTIONS 1314),
     (anon_sym_r_SQUOTE_SQUOTE_SQUOTE, ACTIONS 1314), (anon_sym_LBRACE, ACTIONS 1314),
     (anon_sym_RBRACE, ACTIONS 1314), (anon_sym_LBRACK, ACTIONS 1314),
     (anon_sym_null, ACTIONS 1312), (anon_sym_LPAREN, ACTIONS 1314),
     (anon_sym_throw, ACTIONS 1312), (anon_sym_LT, ACTIONS 1314),
     (sym_increment_operator, ACTIONS 1314), (sym_minus_operator, ACTIONS 1312),
     (anon_sym_BANG, ACTIONS 1314), (anon_sym_TILDE, ACTIONS 1314),
     (anon_sym_await, ACTIONS 1312), (anon_sym_switch, ACTIONS 1312),
     (anon_sym_default, ACTIONS 1312), (anon_sym_do, ACTIONS 1312),
     (anon_sym_while, ACTIONS 1312), (anon_sym_continue, ACTIONS 1312),
     (anon_sym_yield, ACTIONS 1312), (anon_sym_return, ACTIONS 1312),
     (anon_sym_on, ACTIONS 1312), (anon_sym_try, ACTIONS 1312), (anon_sym_catch, ACTIONS 1312),
     (anon_sym_finally, ACTIONS 1312), (anon_sym_if, ACTIONS 1312),
     (anon_sym_case, ACTIONS 1312), (anon_sym_else, ACTIONS 1312), (anon_sym_for, ACTIONS 1312),
     (anon_sym_AT, ACTIONS 1314), (anon_sym_final, ACTIONS 1312), (sym_void_type, ACTIONS 1312),
     (anon_sym_var, ACTIONS 1312), (sym_break_builtin, ACTIONS 1312),
     (sym_assert_builtin, ACTIONS 1312), (sym_rethrow_builtin, ACTIONS 1312),
     (anon_sym_covariant, ACTIONS 1312), (anon_sym_Function, ACTIONS 1312),
     (anon_sym_get, ACTIONS 1312), (anon_sym_set, ACTIONS 1312), (anon_sym_new, ACTIONS 1312),
     (sym_const_builtin, ACTIONS 1312), (anon_sym_late, ACTIONS 1312),
     (anon_sym_this, ACTIONS 1312), (anon_sym_super, ACTIONS 1312),
     (anon_sym_SLASH_SLASH, ACTIONS 3), (anon_sym_SLASH_STAR, ACTIONS 5),
     (anon_sym_SLASH_SLASH_SLASH, ACTIONS 7), (sym__block_comment, ACTIONS 9),
     (sym__documentation_block_comment, ACTIONS 11)]"

lemma row_ok_486: "table_row_ok 486 ts_parse_table_486"
  by (simp add: row_simps ts_parse_table_486_def)

definition ts_parse_table_487 :: table_row where
  "ts_parse_table_487 = [
     (sym__assignment_operator, STATE 296), (sym__cascade_subsection, STATE 652),
     (sym__cascade_assignment_section, STATE 1111), (sym_index_selector, STATE 649),
     (sym_unconditional_assignable_selector, STATE 641),
     (sym_conditional_assignable_selector, STATE 641), (sym__assignable_selector, STATE 561),
     (sym_comment, STATE 487), (sym_documentation_comment, STATE 487),
     (aux_sym_cascade_section_repeat2, STATE 509), (anon_sym_LBRACE, ACTIONS 1153),
     (anon_sym_LBRACK, ACTIONS 1153), (anon_sym_COMMA, ACTIONS 1153),
     (anon_sym_LPAREN, ACTIONS 1153), (anon_sym_EQ, ACTIONS 1067),
     (anon_sym_PLUS_EQ, ACTIONS 1069), (anon_sym_DASH_EQ, ACTIONS 1069),
     (anon_sym_STAR_EQ, ACTIONS 1069), (anon_sym_SLASH_EQ, ACTIONS 1069),
     (anon_sym_PERCENT_EQ, ACTIONS 1069), (anon_sym_TILDE_SLASH_EQ, ACTIONS 1069),
     (anon_sym_LT_LT_EQ, ACTIONS 1069), (anon_sym_GT_GT_EQ, ACTIONS 1069),
     (anon_sym_GT_GT_GT_EQ, ACTIONS 1069), (anon_sym_AMP_EQ, ACTIONS 1069),
     (anon_sym_CARET_EQ, ACTIONS 1069), (anon_sym_PIPE_EQ, ACTIONS 1069),
     (anon_sym_QMARK_QMARK_EQ, ACTIONS 1069), (anon_sym_QMARK_QMARK, ACTIONS 1155),
     (anon_sym_QMARK, ACTIONS 1155), (sym_equality_operator, ACTIONS 1153),
     (anon_sym_LT, ACTIONS 1155), (anon_sym_GT, ACTIONS 1155), (anon_sym_LT_EQ, ACTIONS 1153),
     (anon_sym_GT_EQ, ACTIONS 1153), (anon_sym_PIPE, ACTIONS 1155),
     (anon_sym_CARET, ACTIONS 1155), (anon_sym_AMP, ACTIONS 1155),
     (anon_sym_LT_LT, ACTIONS 1155), (anon_sym_GT_GT, ACTIONS 1155),
     (anon_sym_GT_GT_GT, ACTIONS 1155), (sym__additive_operator, ACTIONS 1155),
     (anon_sym_STAR, ACTIONS 1155), (anon_sym_SLASH, ACTIONS 1155),
     (anon_sym_PERCENT, ACTIONS 1155), (anon_sym_TILDE_SLASH, ACTIONS 1155),
     (anon_sym_BANG, ACTIONS 1155), (anon_sym_is, ACTIONS 1153), (anon_sym_as, ACTIONS 1155),
     (anon_sym_DOT, ACTIONS 1155), (anon_sym_QMARK_DOT, ACTIONS 1155),
     (anon_sym_DOT_DOT, ACTIONS 1153), (anon_sym_QMARK_DOT_DOT, ACTIONS 1153),
     (anon_sym_SEMI, ACTIONS 1153), (anon_sym_EQ_GT, ACTIONS 1153),
     (anon_sym_async, ACTIONS 1155), (anon_sym_async_STAR, ACTIONS 1153),
     (anon_sym_sync_STAR, ACTIONS 1153), (anon_sym_AMP_AMP, ACTIONS 1153),
     (anon_sym_PIPE_PIPE, ACTIONS 1153), (anon_sym_SLASH_SLASH, ACTIONS 3),
     (anon_sym_SLASH_STAR, ACTIONS 5), (anon_sym_SLASH_SLASH_SLASH, ACTIONS 7),
     (sym__block_comment, ACTIONS 9), (sym__documentation_block_comment, ACTIONS 11)]"

lemma row_ok_487: "table_row_ok 487 ts_parse_table_487"
  by (simp add: row_simps ts_parse_table_487_def)

definition ts_parse_table_488 :: table_row where
  "ts_parse_table_488 = [
     (sym_comment, STATE 488), (sym_documentation_comment, STATE 488),
     (sym_identifier, ACTIONS 1316), (anon_sym_POUND, ACTIONS 1318),
     (sym_decimal_integer_literal, ACTIONS 1316), (sym_hex_integer_literal, ACTIONS 1318),
     (sym_decimal_floating_point_literal, ACTIONS 1316), (anon_sym_true, ACTIONS 1316),
     (anon_sym_false, ACTIONS 1316), (anon_sym_DQUOTE, ACTIONS 1316),
     (anon_sym_SQUOTE, ACTIONS 1316), (anon_sym_DQUOTE_DQUOTE_DQUOTE, ACTIONS 1318),
     (anon_sym_SQUOTE_SQUOTE_SQUOTE, ACTIONS 1318), (anon_sym_r_DQUOTE, ACTIONS 1316),
     (anon_sym_r_SQUOTE, ACTIONS 1316), (anon_sym_r_DQUOTE_DQUOTE_DQUOTE, ACTIONS 1318),
     (anon_sym_r_SQUOTE_SQUOTE_SQUOTE, ACTIONS 1318), (anon_sym_LBRACE, ACTIONS 1318),
     (anon_sym_RBRACE, ACTIONS 1318), (anon_sym_LBRACK, ACTIONS 1318),
     (anon_sym_null, ACTIONS 1316), (anon_sym_LPAREN, ACTIONS 1318),
     (anon_sym_throw, ACTIONS 1316), (anon_sym_LT, ACTIONS 1318),
     (sym_increment_operator, ACTIONS 1318), (sym_minus_operator, ACTIONS 1316),
     (anon_sym_BANG, ACTIONS 1318), (anon_sym_TILDE, ACTIONS 1318),
     (anon_sym_await, ACTIONS 1316), (anon_sym_switch, ACTIONS 1316),
     (anon_sym_default, ACTIONS 1316), (anon_sym_do, ACTIONS 1316),
     (anon_sym_while, ACTIONS 1316), (anon_sym_continue, ACTIONS 1316),
     (anon_sym_yield, ACTIONS 1316), (anon_sym_return, ACTIONS 1316),
     (anon_sym_on, ACTIONS 1316), (anon_sym_try, ACTIONS 1316), (anon_sym_catch, ACTIONS 1316),
     (anon_sym_finally, ACTIONS 1316), (anon_sym_if, ACTIONS 1316),
     (anon_sym_case, ACTIONS 1316), (anon_sym_else, ACTIONS 1316), (anon_sym_for, ACTIONS 1316),
     (anon_sym_AT, ACTIONS 1318), (anon_sym_final, ACTIONS 1316), (sym_void_type, ACTIONS 1316),
     (anon_sym_var, ACTIONS 1316), (sym_break_builtin, ACTIONS 1316),
     (sym_assert_builtin, ACTIONS 1316), (sym_rethrow_builtin, ACTIONS 1316),
     (anon_sym_covariant, ACTIONS 1316), (anon_sym_Function, ACTIONS 1316),
     (anon_sym_get, ACTIONS 1316), (anon_sym_set, ACTIONS 1316), (anon_sym_new, ACTIONS 1316),
     (sym_const_builtin, ACTIONS 1316), (anon_sym_late, ACTIONS 1316),
     (anon_sym_this, ACTIONS 1316), (anon_sym_super, ACTIONS 1316),
     (anon_sym_SLASH_SLASH, ACTIONS 3), (anon_sym_SLASH_STAR, ACTIONS 5),
     (anon_sym_SLASH_SLASH_SLASH, ACTIONS 7), (sym__block_comment, ACTIONS 9),
     (sym__documentation_block_comment, ACTIONS 11)]"

lemma row_ok_488: "table_row_ok 488 ts_parse_table_488"
  by (simp add: row_simps ts_parse_table_488_def)

definition ts_parse_table_489 :: table_row where
  "ts_parse_table_489 = [
     (sym_type_parameters, STATE 2932), (sym__type_dot_identifier, STATE 1612),
     (sym__formal_parameter_part, STATE 2276), (sym_formal_parameter_list, STATE 2020),
     (sym__strict_formal_parameter_list, STATE 2016), (sym_comment, STATE 489),
     (sym_documentation_comment, STATE 489), (sym_identifier, ACTIONS 1320),
     (anon_sym_RBRACE, ACTIONS 1322), (anon_sym_LBRACK, ACTIONS 1322),
     (anon_sym_COMMA, ACTIONS 1322), (anon_sym_COLON, ACTIONS 1322),
     (anon_sym_LPAREN, ACTIONS 1324), (anon_sym_EQ, ACTIONS 1328),
     (anon_sym_PLUS_EQ, ACTIONS 1330), (anon_sym_DASH_EQ, ACTIONS 1330),
     (anon_sym_STAR_EQ, ACTIONS 1330), (anon_sym_SLASH_EQ, ACTIONS 1330),
     (anon_sym_PERCENT_EQ, ACTIONS 1330), (anon_sym_TILDE_SLASH_EQ, ACTIONS 1330),
     (anon_sym_LT_LT_EQ, ACTIONS 1330), (anon_sym_GT_GT_EQ, ACTIONS 1330),
     (anon_sym_GT_GT_GT_EQ, ACTIONS 1330), (anon_sym_AMP_EQ, ACTIONS 1330),
     (anon_sym_CARET_EQ, ACTIONS 1330), (anon_sym_PIPE_EQ, ACTIONS 1330),
     (anon_sym_QMARK_QMARK_EQ, ACTIONS 1330), (anon_sym_QMARK_QMARK, ACTIONS 1332),
     (anon_sym_QMARK, ACTIONS 1334), (sym_equality_operator, ACTIONS 1322),
     (anon_sym_LT, ACTIONS 1337), (anon_sym_GT, ACTIONS 1332), (anon_sym_LT_EQ, ACTIONS 1322),
     (anon_sym_GT_EQ, ACTIONS 1322), (anon_sym_PIPE, ACTIONS 1332),
     (anon_sym_CARET, ACTIONS 1332), (anon_sym_AMP, ACTIONS 1332),
     (anon_sym_LT_LT, ACTIONS 1332), (anon_sym_GT_GT, ACTIONS 1332),
     (anon_sym_GT_GT_GT, ACTIONS 1332), (sym__additive_operator, ACTIONS 1332),
     (anon_sym_STAR, ACTIONS 1332), (anon_sym_SLASH, ACTIONS 1332),
     (anon_sym_PERCENT, ACTIONS 1332), (anon_sym_TILDE_SLASH, ACTIONS 1332),
     (sym_increment_operator, ACTIONS 1330), (anon_sym_BANG, ACTIONS 1332),
     (anon_sym_is, ACTIONS 1332), (anon_sym_as, ACTIONS 1332), (anon_sym_DOT, ACTIONS 1341),
     (anon_sym_QMARK_DOT, ACTIONS 1332), (anon_sym_DOT_DOT, ACTIONS 1322),
     (anon_sym_QMARK_DOT_DOT, ACTIONS 1322), (anon_sym_SEMI, ACTIONS 1322),
     (anon_sym_else, ACTIONS 1332), (anon_sym_Function, ACTIONS 1320),
     (anon_sym_get, ACTIONS 1320), (anon_sym_set, ACTIONS 1320),
     (anon_sym_AMP_AMP, ACTIONS 1322), (anon_sym_PIPE_PIPE, ACTIONS 1322),
     (anon_sym_SLASH_SLASH, ACTIONS 3), (anon_sym_SLASH_STAR, ACTIONS 5),
     (anon_sym_SLASH_SLASH_SLASH, ACTIONS 7), (sym__block_comment, ACTIONS 9),
     (sym__documentation_block_comment, ACTIONS 11)]"

lemma row_ok_489: "table_row_ok 489 ts_parse_table_489"
  by (simp add: row_simps ts_parse_table_489_def)

definition ts_parse_table_490 :: table_row where
  "ts_parse_table_490 = [
     (sym__assignment_operator, STATE 296), (sym__cascade_subsection, STATE 652),
     (sym__cascade_assignment_section, STATE 1123), (sym_index_selector, STATE 649),
     (sym_unconditional_assignable_selector, STATE 641),
     (sym_conditional_assignable_selector, STATE 641), (sym__assignable_selector, STATE 561),
     (sym_comment, STATE 490), (sym_documentation_comment, STATE 490),
     (aux_sym_cascade_section_repeat2, STATE 509), (anon_sym_LBRACE, ACTIONS 1065),
     (anon_sym_LBRACK, ACTIONS 1065), (anon_sym_COMMA, ACTIONS 1065),
     (anon_sym_LPAREN, ACTIONS 1065), (anon_sym_EQ, ACTIONS 1067),
     (anon_sym_PLUS_EQ, ACTIONS 1069), (anon_sym_DASH_EQ, ACTIONS 1069),
     (anon_sym_STAR_EQ, ACTIONS 1069), (anon_sym_SLASH_EQ, ACTIONS 1069),
     (anon_sym_PERCENT_EQ, ACTIONS 1069), (anon_sym_TILDE_SLASH_EQ, ACTIONS 1069),
     (anon_sym_LT_LT_EQ, ACTIONS 1069), (anon_sym_GT_GT_EQ, ACTIONS 1069),
     (anon_sym_GT_GT_GT_EQ, ACTIONS 1069), (anon_sym_AMP_EQ, ACTIONS 1069),
     (anon_sym_CARET_EQ, ACTIONS 1069), (anon_sym_PIPE_EQ, ACTIONS 1069),
     (anon_sym_QMARK_QMARK_EQ, ACTIONS 1069), (anon_sym_QMARK_QMARK, ACTIONS 1071),
     (anon_sym_QMARK, ACTIONS 1071), (sym_equality_operator, ACTIONS 1065),
     (anon_sym_LT, ACTIONS 1071), (anon_sym_GT, ACTIONS 1071), (anon_sym_LT_EQ, ACTIONS 1065),
     (anon_sym_GT_EQ, ACTIONS 1065), (anon_sym_PIPE, ACTIONS 1071),
     (anon_sym_CARET, ACTIONS 1071), (anon_sym_AMP, ACTIONS 1071),
     (anon_sym_LT_LT, ACTIONS 1071), (anon_sym_GT_GT, ACTIONS 1071),
     (anon_sym_GT_GT_GT, ACTIONS 1071), (sym__additive_operator, ACTIONS 1071),
     (anon_sym_STAR, ACTIONS 1071), (anon_sym_SLASH, ACTIONS 1071),
     (anon_sym_PERCENT, ACTIONS 1071), (anon_sym_TILDE_SLASH, ACTIONS 1071),
     (anon_sym_BANG, ACTIONS 1071), (anon_sym_is, ACTIONS 1065), (anon_sym_as, ACTIONS 1071),
     (anon_sym_DOT, ACTIONS 1071), (anon_sym_QMARK_DOT, ACTIONS 1071),
     (anon_sym_DOT_DOT, ACTIONS 1065), (anon_sym_QMARK_DOT_DOT, ACTIONS 1065),
     (anon_sym_SEMI, ACTIONS 1065), (anon_sym_EQ_GT, ACTIONS 1065),
     (anon_sym_async, ACTIONS 1071), (anon_sym_async_STAR, ACTIONS 1065),
     (anon_sym_sync_STAR, ACTIONS 1065), (anon_sym_AMP_AMP, ACTIONS 1065),
     (anon_sym_PIPE_PIPE, ACTIONS 1065), (anon_sym_SLASH_SLASH, ACTIONS 3),
     (anon_sym_SLASH_STAR, ACTIONS 5), (anon_sym_SLASH_SLASH_SLASH, ACTIONS 7),
     (sym__block_comment, ACTIONS 9), (sym__documentation_block_comment, ACTIONS 11)]"

lemma row_ok_490: "table_row_ok 490 ts_parse_table_490"
  by (simp add: row_simps ts_parse_table_490_def)

definition ts_parse_table_491 :: table_row where
  "ts_parse_table_491 = [
     (sym_comment, STATE 491), (sym_documentation_comment, STATE 491),
     (sym_identifier, ACTIONS 1041), (anon_sym_POUND, ACTIONS 1039),
     (sym_decimal_integer_literal, ACTIONS 1041), (sym_hex_integer_literal, ACTIONS 1039),
     (sym_decimal_floating_point_literal, ACTIONS 1041), (anon_sym_true, ACTIONS 1041),
     (anon_sym_false, ACTIONS 1041), (anon_sym_DQUOTE, ACTIONS 1041),
     (anon_sym_SQUOTE, ACTIONS 1041), (anon_sym_DQUOTE_DQUOTE_DQUOTE, ACTIONS 1039),
     (anon_sym_SQUOTE_SQUOTE_SQUOTE, ACTIONS 1039), (anon_sym_r_DQUOTE, ACTIONS 1041),
     (anon_sym_r_SQUOTE, ACTIONS 1041), (anon_sym_r_DQUOTE_DQUOTE_DQUOTE, ACTIONS 1039),
     (anon_sym_r_SQUOTE_SQUOTE_SQUOTE, ACTIONS 1039), (anon_sym_LBRACE, ACTIONS 1039),
     (anon_sym_RBRACE, ACTIONS 1039), (anon_sym_LBRACK, ACTIONS 1039),
     (anon_sym_null, ACTIONS 1041), (anon_sym_LPAREN, ACTIONS 1039),
     (anon_sym_throw, ACTIONS 1041), (anon_sym_LT, ACTIONS 1039),
     (sym_increment_operator, ACTIONS 1039), (sym_minus_operator, ACTIONS 1041),
     (anon_sym_BANG, ACTIONS 1039), (anon_sym_TILDE, ACTIONS 1039),
     (anon_sym_await, ACTIONS 1041), (anon_sym_switch, ACTIONS 1041),
     (anon_sym_default, ACTIONS 1041), (anon_sym_do, ACTIONS 1041),
     (anon_sym_while, ACTIONS 1041), (anon_sym_continue, ACTIONS 1041),
     (anon_sym_yield, ACTIONS 1041), (anon_sym_return, ACTIONS 1041),
     (anon_sym_on, ACTIONS 1041), (anon_sym_try, ACTIONS 1041), (anon_sym_catch, ACTIONS 1041),
     (anon_sym_finally, ACTIONS 1041), (anon_sym_if, ACTIONS 1041),
     (anon_sym_case, ACTIONS 1041), (anon_sym_else, ACTIONS 1041), (anon_sym_for, ACTIONS 1041),
     (anon_sym_AT, ACTIONS 1039), (anon_sym_final, ACTIONS 1041), (sym_void_type, ACTIONS 1041),
     (anon_sym_var, ACTIONS 1041), (sym_break_builtin, ACTIONS 1041),
     (sym_assert_builtin, ACTIONS 1041), (sym_rethrow_builtin, ACTIONS 1041),
     (anon_sym_covariant, ACTIONS 1041), (anon_sym_Function, ACTIONS 1041),
     (anon_sym_get, ACTIONS 1041), (anon_sym_set, ACTIONS 1041), (anon_sym_new, ACTIONS 1041),
     (sym_const_builtin, ACTIONS 1041), (anon_sym_late, ACTIONS 1041),
     (anon_sym_this, ACTIONS 1041), (anon_sym_super, ACTIONS 1041),
     (anon_sym_SLASH_SLASH, ACTIONS 3), (anon_sym_SLASH_STAR, ACTIONS 5),
     (anon_sym_SLASH_SLASH_SLASH, ACTIONS 7), (sym__block_comment, ACTIONS 9),
     (sym__documentation_block_comment, ACTIONS 11)]"

lemma row_ok_491: "table_row_ok 491 ts_parse_table_491"
  by (simp add: row_simps ts_parse_table_491_def)

definition ts_parse_table_492 :: table_row where
  "ts_parse_table_492 = [
     (sym_comment, STATE 492), (sym_documentation_comment, STATE 492),
     (sym_identifier, ACTIONS 1345), (anon_sym_POUND, ACTIONS 1347),
     (sym_decimal_integer_literal, ACTIONS 1345), (sym_hex_integer_literal, ACTIONS 1347),
     (sym_decimal_floating_point_literal, ACTIONS 1345), (anon_sym_true, ACTIONS 1345),
     (anon_sym_false, ACTIONS 1345), (anon_sym_DQUOTE, ACTIONS 1345),
     (anon_sym_SQUOTE, ACTIONS 1345), (anon_sym_DQUOTE_DQUOTE_DQUOTE, ACTIONS 1347),
     (anon_sym_SQUOTE_SQUOTE_SQUOTE, ACTIONS 1347), (anon_sym_r_DQUOTE, ACTIONS 1345),
     (anon_sym_r_SQUOTE, ACTIONS 1345), (anon_sym_r_DQUOTE_DQUOTE_DQUOTE, ACTIONS 1347),
     (anon_sym_r_SQUOTE_SQUOTE_SQUOTE, ACTIONS 1347), (anon_sym_LBRACE, ACTIONS 1347),
     (anon_sym_RBRACE, ACTIONS 1347), (anon_sym_LBRACK, ACTIONS 1347),
     (anon_sym_null, ACTIONS 1345), (anon_sym_LPAREN, ACTIONS 1347),
     (anon_sym_throw, ACTIONS 1345), (anon_sym_LT, ACTIONS 1347),
     (sym_increment_operator, ACTIONS 1347), (sym_minus_operator, ACTIONS 1345),
     (anon_sym_BANG, ACTIONS 1347), (anon_sym_TILDE, ACTIONS 1347),
     (anon_sym_await, ACTIONS 1345), (anon_sym_switch, ACTIONS 1345),
     (anon_sym_default, ACTIONS 1345), (anon_sym_do, ACTIONS 1345),
     (anon_sym_while, ACTIONS 1345), (anon_sym_continue, ACTIONS 1345),
     (anon_sym_yield, ACTIONS 1345), (anon_sym_return, ACTIONS 1345),
     (anon_sym_on, ACTIONS 1345), (anon_sym_try, ACTIONS 1345), (anon_sym_catch, ACTIONS 1345),
     (anon_sym_finally, ACTIONS 1345), (anon_sym_if, ACTIONS 1345),
     (anon_sym_case, ACTIONS 1345), (anon_sym_else, ACTIONS 1345), (anon_sym_for, ACTIONS 1345),
     (anon_sym_AT, ACTIONS 1347), (anon_sym_final, ACTIONS 1345), (sym_void_type, ACTIONS 1345),
     (anon_sym_var, ACTIONS 1345), (sym_break_builtin, ACTIONS 1345),
     (sym_assert_builtin, ACTIONS 1345), (sym_rethrow_builtin, ACTIONS 1345),
     (anon_sym_covariant, ACTIONS 1345), (anon_sym_Function, ACTIONS 1345),
     (anon_sym_get, ACTIONS 1345), (anon_sym_set, ACTIONS 1345), (anon_sym_new, ACTIONS 1345),
     (sym_const_builtin, ACTIONS 1345), (anon_sym_late, ACTIONS 1345),
     (anon_sym_this, ACTIONS 1345), (anon_sym_super, ACTIONS 1345),
     (anon_sym_SLASH_SLASH, ACTIONS 3), (anon_sym_SLASH_STAR, ACTIONS 5),
     (anon_sym_SLASH_SLASH_SLASH, ACTIONS 7), (sym__block_comment, ACTIONS 9),
     (sym__documentation_block_comment, ACTIONS 11)]"

lemma row_ok_492: "table_row_ok 492 ts_parse_table_492"
  by (simp add: row_simps ts_parse_table_492_def)

definition ts_parse_table_493 :: table_row where
  "ts_parse_table_493 = [
     (sym_comment, STATE 493), (sym_documentation_comment, STATE 493),
     (sym_identifier, ACTIONS 1349), (anon_sym_POUND, ACTIONS 1351),
     (sym_decimal_integer_literal, ACTIONS 1349), (sym_hex_integer_literal, ACTIONS 1351),
     (sym_decimal_floating_point_literal, ACTIONS 1349), (anon_sym_true, ACTIONS 1349),
     (anon_sym_false, ACTIONS 1349), (anon_sym_DQUOTE, ACTIONS 1349),
     (anon_sym_SQUOTE, ACTIONS 1349), (anon_sym_DQUOTE_DQUOTE_DQUOTE, ACTIONS 1351),
     (anon_sym_SQUOTE_SQUOTE_SQUOTE, ACTIONS 1351), (anon_sym_r_DQUOTE, ACTIONS 1349),
     (anon_sym_r_SQUOTE, ACTIONS 1349), (anon_sym_r_DQUOTE_DQUOTE_DQUOTE, ACTIONS 1351),
     (anon_sym_r_SQUOTE_SQUOTE_SQUOTE, ACTIONS 1351), (anon_sym_LBRACE, ACTIONS 1351),
     (anon_sym_RBRACE, ACTIONS 1351), (anon_sym_LBRACK, ACTIONS 1351),
     (anon_sym_null, ACTIONS 1349), (anon_sym_LPAREN, ACTIONS 1351),
     (anon_sym_throw, ACTIONS 1349), (anon_sym_LT, ACTIONS 1351),
     (sym_increment_operator, ACTIONS 1351), (sym_minus_operator, ACTIONS 1349),
     (anon_sym_BANG, ACTIONS 1351), (anon_sym_TILDE, ACTIONS 1351),
     (anon_sym_await, ACTIONS 1349), (anon_sym_switch, ACTIONS 1349),
     (anon_sym_default, ACTIONS 1349), (anon_sym_do, ACTIONS 1349),
     (anon_sym_while, ACTIONS 1349), (anon_sym_continue, ACTIONS 1349),
     (anon_sym_yield, ACTIONS 1349), (anon_sym_return, ACTIONS 1349),
     (anon_sym_on, ACTIONS 1349), (anon_sym_try, ACTIONS 1349), (anon_sym_catch, ACTIONS 1349),
     (anon_sym_finally, ACTIONS 1349), (anon_sym_if, ACTIONS 1349),
     (anon_sym_case, ACTIONS 1349), (anon_sym_else, ACTIONS 1349), (anon_sym_for, ACTIONS 1349),
     (anon_sym_AT, ACTIONS 1351), (anon_sym_final, ACTIONS 1349), (sym_void_type, ACTIONS 1349),
     (anon_sym_var, ACTIONS 1349), (sym_break_builtin, ACTIONS 1349),
     (sym_assert_builtin, ACTIONS 1349), (sym_rethrow_builtin, ACTIONS 1349),
     (anon_sym_covariant, ACTIONS 1349), (anon_sym_Function, ACTIONS 1349),
     (anon_sym_get, ACTIONS 1349), (anon_sym_set, ACTIONS 1349), (anon_sym_new, ACTIONS 1349),
     (sym_const_builtin, ACTIONS 1349), (anon_sym_late, ACTIONS 1349),
     (anon_sym_this, ACTIONS 1349), (anon_sym_super, ACTIONS 1349),
     (anon_sym_SLASH_SLASH, ACTIONS 3), (anon_sym_SLASH_STAR, ACTIONS 5),
     (anon_sym_SLASH_SLASH_SLASH, ACTIONS 7), (sym__block_comment, ACTIONS 9),
     (sym__documentation_block_comment, ACTIONS 11)]"

lemma row_ok_493: "table_row_ok 493 ts_parse_table_493"
  by (simp add: row_simps ts_parse_table_493_def)

definition ts_parse_table_rows_8 :: "(TSStateId \<times> table_row) list" where
  "ts_parse_table_rows_8 = [
     (404, ts_parse_table_404), (405, ts_parse_table_405), (406, ts_parse_table_406),
     (407, ts_parse_table_407), (408, ts_parse_table_408), (409, ts_parse_table_409),
     (410, ts_parse_table_410), (411, ts_parse_table_411), (412, ts_parse_table_412),
     (413, ts_parse_table_413), (414, ts_parse_table_414), (415, ts_parse_table_415),
     (416, ts_parse_table_416), (417, ts_parse_table_417), (418, ts_parse_table_418),
     (419, ts_parse_table_419), (420, ts_parse_table_420), (421, ts_parse_table_421),
     (422, ts_parse_table_422), (423, ts_parse_table_423), (424, ts_parse_table_424),
     (425, ts_parse_table_425), (426, ts_parse_table_426), (427, ts_parse_table_427),
     (428, ts_parse_table_428), (429, ts_parse_table_429), (430, ts_parse_table_430),
     (431, ts_parse_table_431), (432, ts_parse_table_432), (433, ts_parse_table_433),
     (434, ts_parse_table_434), (435, ts_parse_table_435), (436, ts_parse_table_436),
     (437, ts_parse_table_437), (438, ts_parse_table_438), (439, ts_parse_table_439),
     (440, ts_parse_table_440), (441, ts_parse_table_441), (442, ts_parse_table_442),
     (443, ts_parse_table_443), (444, ts_parse_table_444), (445, ts_parse_table_445),
     (446, ts_parse_table_446), (447, ts_parse_table_447), (448, ts_parse_table_448),
     (449, ts_parse_table_449), (450, ts_parse_table_450), (451, ts_parse_table_451),
     (452, ts_parse_table_452), (453, ts_parse_table_453), (454, ts_parse_table_454),
     (455, ts_parse_table_455), (456, ts_parse_table_456), (457, ts_parse_table_457),
     (458, ts_parse_table_458), (459, ts_parse_table_459), (460, ts_parse_table_460),
     (461, ts_parse_table_461), (462, ts_parse_table_462), (463, ts_parse_table_463),
     (464, ts_parse_table_464), (465, ts_parse_table_465), (466, ts_parse_table_466),
     (467, ts_parse_table_467), (468, ts_parse_table_468), (469, ts_parse_table_469),
     (470, ts_parse_table_470), (471, ts_parse_table_471), (472, ts_parse_table_472),
     (473, ts_parse_table_473), (474, ts_parse_table_474), (475, ts_parse_table_475),
     (476, ts_parse_table_476), (477, ts_parse_table_477), (478, ts_parse_table_478),
     (479, ts_parse_table_479), (480, ts_parse_table_480), (481, ts_parse_table_481),
     (482, ts_parse_table_482), (483, ts_parse_table_483), (484, ts_parse_table_484),
     (485, ts_parse_table_485), (486, ts_parse_table_486), (487, ts_parse_table_487),
     (488, ts_parse_table_488), (489, ts_parse_table_489), (490, ts_parse_table_490),
     (491, ts_parse_table_491), (492, ts_parse_table_492), (493, ts_parse_table_493)]"

lemma rows_ok_8: "list_all (\<lambda>(s, es). table_row_ok s es) ts_parse_table_rows_8"
  by (simp add: ts_parse_table_rows_8_def
    row_ok_404 row_ok_405 row_ok_406 row_ok_407 row_ok_408 row_ok_409 row_ok_410 row_ok_411 row_ok_412
    row_ok_413 row_ok_414 row_ok_415 row_ok_416 row_ok_417 row_ok_418 row_ok_419 row_ok_420 row_ok_421
    row_ok_422 row_ok_423 row_ok_424 row_ok_425 row_ok_426 row_ok_427 row_ok_428 row_ok_429 row_ok_430
    row_ok_431 row_ok_432 row_ok_433 row_ok_434 row_ok_435 row_ok_436 row_ok_437 row_ok_438 row_ok_439
    row_ok_440 row_ok_441 row_ok_442 row_ok_443 row_ok_444 row_ok_445 row_ok_446 row_ok_447 row_ok_448
    row_ok_449 row_ok_450 row_ok_451 row_ok_452 row_ok_453 row_ok_454 row_ok_455 row_ok_456 row_ok_457
    row_ok_458 row_ok_459 row_ok_460 row_ok_461 row_ok_462 row_ok_463 row_ok_464 row_ok_465 row_ok_466
    row_ok_467 row_ok_468 row_ok_469 row_ok_470 row_ok_471 row_ok_472 row_ok_473 row_ok_474 row_ok_475
    row_ok_476 row_ok_477 row_ok_478 row_ok_479 row_ok_480 row_ok_481 row_ok_482 row_ok_483 row_ok_484
    row_ok_485 row_ok_486 row_ok_487 row_ok_488 row_ok_489 row_ok_490 row_ok_491 row_ok_492 row_ok_493)

lemma row_keys_8: "map fst ts_parse_table_rows_8 = [404..<494]"
  by (simp add: ts_parse_table_rows_8_def upt_from_0)

end
