(* ===== verification/Dart_Small_1.thy ===== *)
theory Dart_Small_1
  imports Dart_Items
begin

text \<open>
  The groups of \<^verbatim>\<open>ts_small_parse_table\<close> for the states 494 to 646, in blocks of at most 150 lines of
  the source, each with the check of its layout and of its entries.
\<close>

definition ts_small_parse_table_1 :: "small_group list" where
  "ts_small_parse_table_1 = [
     (0, 41, [(ACTIONS 3, 1, [anon_sym_SLASH_SLASH]), (ACTIONS 5, 1, [anon_sym_SLASH_STAR]),
       (ACTIONS 7, 1, [anon_sym_SLASH_SLASH_SLASH]), (ACTIONS 9, 1, [sym__block_comment]),
       (ACTIONS 11, 1, [sym__documentation_block_comment]), (ACTIONS 1259, 1,
       [anon_sym_QMARK_QMARK]), (ACTIONS 1261, 1, [anon_sym_QMARK]), (ACTIONS 1263, 1,
       [sym_equality_operator]), (ACTIONS 1265, 1, [anon_sym_PIPE]), (ACTIONS 1267, 1,
       [anon_sym_CARET]), (ACTIONS 1269, 1, [anon_sym_AMP]), (ACTIONS 1273, 1, [anon_sym_GT_GT]),
       (ACTIONS 1275, 1, [sym__additive_operator]), (ACTIONS 1279, 1, [anon_sym_is]), (ACTIONS
       1281, 1, [anon_sym_as]), (ACTIONS 1286, 1, [anon_sym_AMP_AMP]), (ACTIONS 1288, 1,
       [anon_sym_PIPE_PIPE]), (STATE 329, 1, [sym_relational_operator]), (STATE 343, 1,
       [sym_shift_operator]), (STATE 365, 1, [sym_logical_or_operator]), (STATE 366, 1,
       [sym_logical_and_operator]), (STATE 368, 1, [sym_additive_operator]), (STATE 792, 1,
       [aux_sym_shift_expression_repeat1]), (STATE 833, 1,
       [aux_sym_additive_expression_repeat1]), (STATE 834, 1,
       [aux_sym_logical_or_expression_repeat1]), (STATE 835, 1,
       [aux_sym_logical_and_expression_repeat1]), (STATE 839, 1,
       [aux_sym_bitwise_or_expression_repeat1]), (STATE 840, 1,
       [aux_sym_bitwise_xor_expression_repeat1]), (STATE 841, 1,
       [aux_sym_bitwise_and_expression_repeat1]), (STATE 884, 1, [aux_sym__if_null_expression]),
       (STATE 956, 1, [sym_type_cast]), (STATE 957, 1, [sym_type_test]), (STATE 1397, 1,
       [sym__shift_operator]), (STATE 2089, 1, [sym_is_operator]), (STATE 2090, 1,
       [sym_as_operator]), (ACTIONS 400, 2, [anon_sym_LT, anon_sym_GT]), (ACTIONS 402, 2,
       [anon_sym_LT_EQ, anon_sym_GT_EQ]), (ACTIONS 1271, 2, [anon_sym_LT_LT, anon_sym_GT_GT_GT]),
       (STATE 494, 2, [sym_comment, sym_documentation_comment]), (ACTIONS 1355, 4,
       [anon_sym_SLASH, anon_sym_BANG, anon_sym_DOT, anon_sym_QMARK_DOT]), (ACTIONS 1353, 17,
       [anon_sym_RBRACE, anon_sym_LBRACK, anon_sym_COMMA, anon_sym_RBRACK, anon_sym_COLON,
       anon_sym_LPAREN, anon_sym_RPAREN, anon_sym_STAR, anon_sym_PERCENT, anon_sym_TILDE_SLASH,
       anon_sym_DOT_DOT, anon_sym_QMARK_DOT_DOT, anon_sym_SEMI, anon_sym_EQ_GT, anon_sym_when,
       anon_sym_case, anon_sym_else])])]"

lemma small_run_1: "small_run 494 0 ts_small_parse_table_1 495 147"
  by (simp add: small_simps ts_small_parse_table_1_def)

definition ts_small_parse_table_2 :: "small_group list" where
  "ts_small_parse_table_2 = [
     (147, 41, [(ACTIONS 3, 1, [anon_sym_SLASH_SLASH]), (ACTIONS 5, 1, [anon_sym_SLASH_STAR]),
       (ACTIONS 7, 1, [anon_sym_SLASH_SLASH_SLASH]), (ACTIONS 9, 1, [sym__block_comment]),
       (ACTIONS 11, 1, [sym__documentation_block_comment]), (ACTIONS 1259, 1,
       [anon_sym_QMARK_QMARK]), (ACTIONS 1261, 1, [anon_sym_QMARK]), (ACTIONS 1263, 1,
       [sym_equality_operator]), (ACTIONS 1265, 1, [anon_sym_PIPE]), (ACTIONS 1267, 1,
       [anon_sym_CARET]), (ACTIONS 1269, 1, [anon_sym_AMP]), (ACTIONS 1273, 1, [anon_sym_GT_GT]),
       (ACTIONS 1275, 1, [sym__additive_operator]), (ACTIONS 1279, 1, [anon_sym_is]), (ACTIONS
       1281, 1, [anon_sym_as]), (ACTIONS 1286, 1, [anon_sym_AMP_AMP]), (ACTIONS 1288, 1,
       [anon_sym_PIPE_PIPE]), (STATE 329, 1, [sym_relational_operator]), (STATE 343, 1,
       [sym_shift_operator]), (STATE 365, 1, [sym_logical_or_operator]), (STATE 366, 1,
       [sym_logical_and_operator]), (STATE 368, 1, [sym_additive_operator]), (STATE 792, 1,
       [aux_sym_shift_expression_repeat1]), (STATE 833, 1,
       [aux_sym_additive_expression_repeat1]), (STATE 834, 1,
       [aux_sym_logical_or_expression_repeat1]), (STATE 835, 1,
       [aux_sym_logical_and_expression_repeat1]), (STATE 839, 1,
       [aux_sym_bitwise_or_expression_repeat1]), (STATE 840, 1,
       [aux_sym_bitwise_xor_expression_repeat1]), (STATE 841, 1,
       [aux_sym_bitwise_and_expression_repeat1]), (STATE 884, 1, [aux_sym__if_null_expression]),
       (STATE 956, 1, [sym_type_cast]), (STATE 957, 1, [sym_type_test]), (STATE 1397, 1,
       [sym__shift_operator]), (STATE 2089, 1, [sym_is_operator]), (STATE 2090, 1,
       [sym_as_operator]), (ACTIONS 400, 2, [anon_sym_LT, anon_sym_GT]), (ACTIONS 402, 2,
       [anon_sym_LT_EQ, anon_sym_GT_EQ]), (ACTIONS 1271, 2, [anon_sym_LT_LT, anon_sym_GT_GT_GT]),
       (STATE 495, 2, [sym_comment, sym_documentation_comment]), (ACTIONS 1359, 4,
       [anon_sym_SLASH, anon_sym_BANG, anon_sym_DOT, anon_sym_QMARK_DOT]), (ACTIONS 1357, 17,
       [anon_sym_RBRACE, anon_sym_LBRACK, anon_sym_COMMA, anon_sym_RBRACK, anon_sym_COLON,
       anon_sym_LPAREN, anon_sym_RPAREN, anon_sym_STAR, anon_sym_PERCENT, anon_sym_TILDE_SLASH,
       anon_sym_DOT_DOT, anon_sym_QMARK_DOT_DOT, anon_sym_SEMI, anon_sym_EQ_GT, anon_sym_when,
       anon_sym_case, anon_sym_else])])]"

lemma small_run_2: "small_run 495 147 ts_small_parse_table_2 496 294"
  by (simp add: small_simps ts_small_parse_table_2_def)

definition ts_small_parse_table_3 :: "small_group list" where
  "ts_small_parse_table_3 = [
     (294, 13, [(ACTIONS 3, 1, [anon_sym_SLASH_SLASH]), (ACTIONS 5, 1, [anon_sym_SLASH_STAR]),
       (ACTIONS 7, 1, [anon_sym_SLASH_SLASH_SLASH]), (ACTIONS 9, 1, [sym__block_comment]),
       (ACTIONS 11, 1, [sym__documentation_block_comment]), (ACTIONS 1363, 1, [anon_sym_LPAREN]),
       (ACTIONS 1368, 1, [anon_sym_LT]), (STATE 579, 1, [sym_argument_part]), (STATE 583, 1,
       [sym_arguments]), (STATE 3083, 1, [sym_type_arguments]), (STATE 496, 3, [sym_comment,
       sym_documentation_comment, aux_sym_cascade_section_repeat1]), (ACTIONS 1366, 18,
       [anon_sym_EQ, anon_sym_QMARK_QMARK, anon_sym_QMARK, anon_sym_GT, anon_sym_PIPE,
       anon_sym_CARET, anon_sym_AMP, anon_sym_LT_LT, anon_sym_GT_GT, anon_sym_GT_GT_GT,
       sym__additive_operator, anon_sym_STAR, anon_sym_SLASH, anon_sym_PERCENT,
       anon_sym_TILDE_SLASH, anon_sym_BANG, anon_sym_DOT, anon_sym_QMARK_DOT]), (ACTIONS 1361,
       33, [anon_sym_RBRACE, anon_sym_LBRACK, anon_sym_COMMA, anon_sym_RBRACK, anon_sym_COLON,
       anon_sym_RPAREN, anon_sym_PLUS_EQ, anon_sym_DASH_EQ, anon_sym_STAR_EQ, anon_sym_SLASH_EQ,
       anon_sym_PERCENT_EQ, anon_sym_TILDE_SLASH_EQ, anon_sym_LT_LT_EQ, anon_sym_GT_GT_EQ,
       anon_sym_GT_GT_GT_EQ, anon_sym_AMP_EQ, anon_sym_CARET_EQ, anon_sym_PIPE_EQ,
       anon_sym_QMARK_QMARK_EQ, sym_equality_operator, anon_sym_LT_EQ, anon_sym_GT_EQ,
       anon_sym_is, anon_sym_as, anon_sym_DOT_DOT, anon_sym_QMARK_DOT_DOT, anon_sym_SEMI,
       anon_sym_EQ_GT, anon_sym_when, anon_sym_case, anon_sym_else, anon_sym_AMP_AMP,
       anon_sym_PIPE_PIPE])])]"

lemma small_run_3: "small_run 496 294 ts_small_parse_table_3 497 385"
  by (simp add: small_simps ts_small_parse_table_3_def)

definition ts_small_parse_table_4 :: "small_group list" where
  "ts_small_parse_table_4 = [
     (385, 14, [(ACTIONS 3, 1, [anon_sym_SLASH_SLASH]), (ACTIONS 5, 1, [anon_sym_SLASH_STAR]),
       (ACTIONS 7, 1, [anon_sym_SLASH_SLASH_SLASH]), (ACTIONS 9, 1, [sym__block_comment]),
       (ACTIONS 11, 1, [sym__documentation_block_comment]), (ACTIONS 1373, 1, [anon_sym_LPAREN]),
       (ACTIONS 1378, 1, [anon_sym_LT]), (STATE 496, 1, [aux_sym_cascade_section_repeat1]),
       (STATE 579, 1, [sym_argument_part]), (STATE 583, 1, [sym_arguments]), (STATE 3083, 1,
       [sym_type_arguments]), (STATE 497, 2, [sym_comment, sym_documentation_comment]), (ACTIONS
       1376, 18, [anon_sym_EQ, anon_sym_QMARK_QMARK, anon_sym_QMARK, anon_sym_GT, anon_sym_PIPE,
       anon_sym_CARET, anon_sym_AMP, anon_sym_LT_LT, anon_sym_GT_GT, anon_sym_GT_GT_GT,
       sym__additive_operator, anon_sym_STAR, anon_sym_SLASH, anon_sym_PERCENT,
       anon_sym_TILDE_SLASH, anon_sym_BANG, anon_sym_DOT, anon_sym_QMARK_DOT]), (ACTIONS 1371,
       33, [anon_sym_RBRACE, anon_sym_LBRACK, anon_sym_COMMA, anon_sym_RBRACK, anon_sym_COLON,
       anon_sym_RPAREN, anon_sym_PLUS_EQ, anon_sym_DASH_EQ, anon_sym_STAR_EQ, anon_sym_SLASH_EQ,
       anon_sym_PERCENT_EQ, anon_sym_TILDE_SLASH_EQ, anon_sym_LT_LT_EQ, anon_sym_GT_GT_EQ,
       anon_sym_GT_GT_GT_EQ, anon_sym_AMP_EQ, anon_sym_CARET_EQ, anon_sym_PIPE_EQ,
       anon_sym_QMARK_QMARK_EQ, sym_equality_operator, anon_sym_LT_EQ, anon_sym_GT_EQ,
       anon_sym_is, anon_sym_as, anon_sym_DOT_DOT, anon_sym_QMARK_DOT_DOT, anon_sym_SEMI,
       anon_sym_EQ_GT, anon_sym_when, anon_sym_case, anon_sym_else, anon_sym_AMP_AMP,
       anon_sym_PIPE_PIPE])])]"

lemma small_run_4: "small_run 497 385 ts_small_parse_table_4 498 478"
  by (simp add: small_simps ts_small_parse_table_4_def)

definition ts_small_parse_table_5 :: "small_group list" where
  "ts_small_parse_table_5 = [
     (478, 41, [(ACTIONS 3, 1, [anon_sym_SLASH_SLASH]), (ACTIONS 5, 1, [anon_sym_SLASH_STAR]),
       (ACTIONS 7, 1, [anon_sym_SLASH_SLASH_SLASH]), (ACTIONS 9, 1, [sym__block_comment]),
       (ACTIONS 11, 1, [sym__documentation_block_comment]), (ACTIONS 1259, 1,
       [anon_sym_QMARK_QMARK]), (ACTIONS 1261, 1, [anon_sym_QMARK]), (ACTIONS 1263, 1,
       [sym_equality_operator]), (ACTIONS 1265, 1, [anon_sym_PIPE]), (ACTIONS 1267, 1,
       [anon_sym_CARET]), (ACTIONS 1269, 1, [anon_sym_AMP]), (ACTIONS 1273, 1, [anon_sym_GT_GT]),
       (ACTIONS 1275, 1, [sym__additive_operator]), (ACTIONS 1279, 1, [anon_sym_is]), (ACTIONS
       1281, 1, [anon_sym_as]), (ACTIONS 1286, 1, [anon_sym_AMP_AMP]), (ACTIONS 1288, 1,
       [anon_sym_PIPE_PIPE]), (STATE 329, 1, [sym_relational_operator]), (STATE 343, 1,
       [sym_shift_operator]), (STATE 365, 1, [sym_logical_or_operator]), (STATE 366, 1,
       [sym_logical_and_operator]), (STATE 368, 1, [sym_additive_operator]), (STATE 792, 1,
       [aux_sym_shift_expression_repeat1]), (STATE 833, 1,
       [aux_sym_additive_expression_repeat1]), (STATE 834, 1,
       [aux_sym_logical_or_expression_repeat1]), (STATE 835, 1,
       [aux_sym_logical_and_expression_repeat1]), (STATE 839, 1,
       [aux_sym_bitwise_or_expression_repeat1]), (STATE 840, 1,
       [aux_sym_bitwise_xor_expression_repeat1]), (STATE 841, 1,
       [aux_sym_bitwise_and_expression_repeat1]), (STATE 884, 1, [aux_sym__if_null_expression]),
       (STATE 956, 1, [sym_type_cast]), (STATE 957, 1, [sym_type_test]), (STATE 1397, 1,
       [sym__shift_operator]), (STATE 2089, 1, [sym_is_operator]), (STATE 2090, 1,
       [sym_as_operator]), (ACTIONS 400, 2, [anon_sym_LT, anon_sym_GT]), (ACTIONS 402, 2,
       [anon_sym_LT_EQ, anon_sym_GT_EQ]), (ACTIONS 1271, 2, [anon_sym_LT_LT, anon_sym_GT_GT_GT]),
       (STATE 498, 2, [sym_comment, sym_documentation_comment]), (ACTIONS 1383, 4,
       [anon_sym_SLASH, anon_sym_BANG, anon_sym_DOT, anon_sym_QMARK_DOT]), (ACTIONS 1381, 17,
       [anon_sym_RBRACE, anon_sym_LBRACK, anon_sym_COMMA, anon_sym_RBRACK, anon_sym_COLON,
       anon_sym_LPAREN, anon_sym_RPAREN, anon_sym_STAR, anon_sym_PERCENT, anon_sym_TILDE_SLASH,
       anon_sym_DOT_DOT, anon_sym_QMARK_DOT_DOT, anon_sym_SEMI, anon_sym_EQ_GT, anon_sym_when,
       anon_sym_case, anon_sym_else])])]"

lemma small_run_5: "small_run 498 478 ts_small_parse_table_5 499 625"
  by (simp add: small_simps ts_small_parse_table_5_def)

definition ts_small_parse_table_6 :: "small_group list" where
  "ts_small_parse_table_6 = [
     (625, 14, [(ACTIONS 3, 1, [anon_sym_SLASH_SLASH]), (ACTIONS 5, 1, [anon_sym_SLASH_STAR]),
       (ACTIONS 7, 1, [anon_sym_SLASH_SLASH_SLASH]), (ACTIONS 9, 1, [sym__block_comment]),
       (ACTIONS 11, 1, [sym__documentation_block_comment]), (ACTIONS 1387, 1, [anon_sym_LPAREN]),
       (ACTIONS 1392, 1, [anon_sym_LT]), (STATE 497, 1, [aux_sym_cascade_section_repeat1]),
       (STATE 579, 1, [sym_argument_part]), (STATE 583, 1, [sym_arguments]), (STATE 3083, 1,
       [sym_type_arguments]), (STATE 499, 2, [sym_comment, sym_documentation_comment]), (ACTIONS
       1390, 18, [anon_sym_EQ, anon_sym_QMARK_QMARK, anon_sym_QMARK, anon_sym_GT, anon_sym_PIPE,
       anon_sym_CARET, anon_sym_AMP, anon_sym_LT_LT, anon_sym_GT_GT, anon_sym_GT_GT_GT,
       sym__additive_operator, anon_sym_STAR, anon_sym_SLASH, anon_sym_PERCENT,
       anon_sym_TILDE_SLASH, anon_sym_BANG, anon_sym_DOT, anon_sym_QMARK_DOT]), (ACTIONS 1385,
       33, [anon_sym_RBRACE, anon_sym_LBRACK, anon_sym_COMMA, anon_sym_RBRACK, anon_sym_COLON,
       anon_sym_RPAREN, anon_sym_PLUS_EQ, anon_sym_DASH_EQ, anon_sym_STAR_EQ, anon_sym_SLASH_EQ,
       anon_sym_PERCENT_EQ, anon_sym_TILDE_SLASH_EQ, anon_sym_LT_LT_EQ, anon_sym_GT_GT_EQ,
       anon_sym_GT_GT_GT_EQ, anon_sym_AMP_EQ, anon_sym_CARET_EQ, anon_sym_PIPE_EQ,
       anon_sym_QMARK_QMARK_EQ, sym_equality_operator, anon_sym_LT_EQ, anon_sym_GT_EQ,
       anon_sym_is, anon_sym_as, anon_sym_DOT_DOT, anon_sym_QMARK_DOT_DOT, anon_sym_SEMI,
       anon_sym_EQ_GT, anon_sym_when, anon_sym_case, anon_sym_else, anon_sym_AMP_AMP,
       anon_sym_PIPE_PIPE])])]"

lemma small_run_6: "small_run 499 625 ts_small_parse_table_6 500 718"
  by (simp add: small_simps ts_small_parse_table_6_def)

definition ts_small_parse_table_7 :: "small_group list" where
  "ts_small_parse_table_7 = [
     (718, 41, [(ACTIONS 3, 1, [anon_sym_SLASH_SLASH]), (ACTIONS 5, 1, [anon_sym_SLASH_STAR]),
       (ACTIONS 7, 1, [anon_sym_SLASH_SLASH_SLASH]), (ACTIONS 9, 1, [sym__block_comment]),
       (ACTIONS 11, 1, [sym__documentation_block_comment]), (ACTIONS 1259, 1,
       [anon_sym_QMARK_QMARK]), (ACTIONS 1261, 1, [anon_sym_QMARK]), (ACTIONS 1263, 1,
       [sym_equality_operator]), (ACTIONS 1265, 1, [anon_sym_PIPE]), (ACTIONS 1267, 1,
       [anon_sym_CARET]), (ACTIONS 1269, 1, [anon_sym_AMP]), (ACTIONS 1273, 1, [anon_sym_GT_GT]),
       (ACTIONS 1275, 1, [sym__additive_operator]), (ACTIONS 1279, 1, [anon_sym_is]), (ACTIONS
       1281, 1, [anon_sym_as]), (ACTIONS 1286, 1, [anon_sym_AMP_AMP]), (ACTIONS 1288, 1,
       [anon_sym_PIPE_PIPE]), (STATE 329, 1, [sym_relational_operator]), (STATE 343, 1,
       [sym_shift_operator]), (STATE 365, 1, [sym_logical_or_operator]), (STATE 366, 1,
       [sym_logical_and_operator]), (STATE 368, 1, [sym_additive_operator]), (STATE 792, 1,
       [aux_sym_shift_expression_repeat1]), (STATE 833, 1,
       [aux_sym_additive_expression_repeat1]), (STATE 834, 1,
       [aux_sym_logical_or_expression_repeat1]), (STATE 835, 1,
       [aux_sym_logical_and_expression_repeat1]), (STATE 839, 1,
       [aux_sym_bitwise_or_expression_repeat1]), (STATE 840, 1,
       [aux_sym_bitwise_xor_expression_repeat1]), (STATE 841, 1,
       [aux_sym_bitwise_and_expression_repeat1]), (STATE 884, 1, [aux_sym__if_null_expression]),
       (STATE 956, 1, [sym_type_cast]), (STATE 957, 1, [sym_type_test]), (STATE 1397, 1,
       [sym__shift_operator]), (STATE 2089, 1, [sym_is_operator]), (STATE 2090, 1,
       [sym_as_operator]), (ACTIONS 400, 2, [anon_sym_LT, anon_sym_GT]), (ACTIONS 402, 2,
       [anon_sym_LT_EQ, anon_sym_GT_EQ]), (ACTIONS 1271, 2, [anon_sym_LT_LT, anon_sym_GT_GT_GT]),
       (STATE 500, 2, [sym_comment, sym_documentation_comment]), (ACTIONS 1397, 4,
       [anon_sym_SLASH, anon_sym_BANG, anon_sym_DOT, anon_sym_QMARK_DOT]), (ACTIONS 1395, 17,
       [anon_sym_RBRACE, anon_sym_LBRACK, anon_sym_COMMA, anon_sym_RBRACK, anon_sym_COLON,
       anon_sym_LPAREN, anon_sym_RPAREN, anon_sym_STAR, anon_sym_PERCENT, anon_sym_TILDE_SLASH,
       anon_sym_DOT_DOT, anon_sym_QMARK_DOT_DOT, anon_sym_SEMI, anon_sym_EQ_GT, anon_sym_when,
       anon_sym_case, anon_sym_else])])]"

lemma small_run_7: "small_run 500 718 ts_small_parse_table_7 501 865"
  by (simp add: small_simps ts_small_parse_table_7_def)

definition ts_small_parse_table_8 :: "small_group list" where
  "ts_small_parse_table_8 = [
     (865, 37, [(ACTIONS 3, 1, [anon_sym_SLASH_SLASH]), (ACTIONS 5, 1, [anon_sym_SLASH_STAR]),
       (ACTIONS 7, 1, [anon_sym_SLASH_SLASH_SLASH]), (ACTIONS 9, 1, [sym__block_comment]),
       (ACTIONS 11, 1, [sym__documentation_block_comment]), (ACTIONS 1265, 1, [anon_sym_PIPE]),
       (ACTIONS 1267, 1, [anon_sym_CARET]), (ACTIONS 1269, 1, [anon_sym_AMP]), (ACTIONS 1273, 1,
       [anon_sym_GT_GT]), (ACTIONS 1275, 1, [sym__additive_operator]), (ACTIONS 1279, 1,
       [anon_sym_is]), (ACTIONS 1281, 1, [anon_sym_as]), (ACTIONS 1403, 1,
       [sym_equality_operator]), (STATE 329, 1, [sym_relational_operator]), (STATE 343, 1,
       [sym_shift_operator]), (STATE 365, 1, [sym_logical_or_operator]), (STATE 366, 1,
       [sym_logical_and_operator]), (STATE 368, 1, [sym_additive_operator]), (STATE 792, 1,
       [aux_sym_shift_expression_repeat1]), (STATE 833, 1,
       [aux_sym_additive_expression_repeat1]), (STATE 834, 1,
       [aux_sym_logical_or_expression_repeat1]), (STATE 835, 1,
       [aux_sym_logical_and_expression_repeat1]), (STATE 839, 1,
       [aux_sym_bitwise_or_expression_repeat1]), (STATE 840, 1,
       [aux_sym_bitwise_xor_expression_repeat1]), (STATE 841, 1,
       [aux_sym_bitwise_and_expression_repeat1]), (STATE 884, 1, [aux_sym__if_null_expression]),
       (STATE 956, 1, [sym_type_cast]), (STATE 957, 1, [sym_type_test]), (STATE 1397, 1,
       [sym__shift_operator]), (STATE 2089, 1, [sym_is_operator]), (STATE 2090, 1,
       [sym_as_operator]), (ACTIONS 400, 2, [anon_sym_LT, anon_sym_GT]), (ACTIONS 402, 2,
       [anon_sym_LT_EQ, anon_sym_GT_EQ]), (ACTIONS 1271, 2, [anon_sym_LT_LT, anon_sym_GT_GT_GT]),
       (STATE 501, 2, [sym_comment, sym_documentation_comment]), (ACTIONS 1401, 5,
       [anon_sym_QMARK, anon_sym_SLASH, anon_sym_BANG, anon_sym_DOT, anon_sym_QMARK_DOT]),
       (ACTIONS 1399, 20, [anon_sym_RBRACE, anon_sym_LBRACK, anon_sym_COMMA, anon_sym_RBRACK,
       anon_sym_COLON, anon_sym_LPAREN, anon_sym_RPAREN, anon_sym_QMARK_QMARK, anon_sym_STAR,
       anon_sym_PERCENT, anon_sym_TILDE_SLASH, anon_sym_DOT_DOT, anon_sym_QMARK_DOT_DOT,
       anon_sym_SEMI, anon_sym_EQ_GT, anon_sym_when, anon_sym_case, anon_sym_else,
       anon_sym_AMP_AMP, anon_sym_PIPE_PIPE])])]"

lemma small_run_8: "small_run 501 865 ts_small_parse_table_8 502 1004"
  by (simp add: small_simps ts_small_parse_table_8_def)

definition ts_small_parse_table_9 :: "small_group list" where
  "ts_small_parse_table_9 = [
     (1004, 41, [(ACTIONS 3, 1, [anon_sym_SLASH_SLASH]), (ACTIONS 5, 1, [anon_sym_SLASH_STAR]),
       (ACTIONS 7, 1, [anon_sym_SLASH_SLASH_SLASH]), (ACTIONS 9, 1, [sym__block_comment]),
       (ACTIONS 11, 1, [sym__documentation_block_comment]), (ACTIONS 1259, 1,
       [anon_sym_QMARK_QMARK]), (ACTIONS 1261, 1, [anon_sym_QMARK]), (ACTIONS 1263, 1,
       [sym_equality_operator]), (ACTIONS 1265, 1, [anon_sym_PIPE]), (ACTIONS 1267, 1,
       [anon_sym_CARET]), (ACTIONS 1269, 1, [anon_sym_AMP]), (ACTIONS 1273, 1, [anon_sym_GT_GT]),
       (ACTIONS 1275, 1, [sym__additive_operator]), (ACTIONS 1279, 1, [anon_sym_is]), (ACTIONS
       1281, 1, [anon_sym_as]), (ACTIONS 1286, 1, [anon_sym_AMP_AMP]), (ACTIONS 1288, 1,
       [anon_sym_PIPE_PIPE]), (STATE 329, 1, [sym_relational_operator]), (STATE 343, 1,
       [sym_shift_operator]), (STATE 365, 1, [sym_logical_or_operator]), (STATE 366, 1,
       [sym_logical_and_operator]), (STATE 368, 1, [sym_additive_operator]), (STATE 792, 1,
       [aux_sym_shift_expression_repeat1]), (STATE 833, 1,
       [aux_sym_additive_expression_repeat1]), (STATE 834, 1,
       [aux_sym_logical_or_expression_repeat1]), (STATE 835, 1,
       [aux_sym_logical_and_expression_repeat1]), (STATE 839, 1,
       [aux_sym_bitwise_or_expression_repeat1]), (STATE 840, 1,
       [aux_sym_bitwise_xor_expression_repeat1]), (STATE 841, 1,
       [aux_sym_bitwise_and_expression_repeat1]), (STATE 884, 1, [aux_sym__if_null_expression]),
       (STATE 956, 1, [sym_type_cast]), (STATE 957, 1, [sym_type_test]), (STATE 1397, 1,
       [sym__shift_operator]), (STATE 2089, 1, [sym_is_operator]), (STATE 2090, 1,
       [sym_as_operator]), (ACTIONS 400, 2, [anon_sym_LT, anon_sym_GT]), (ACTIONS 402, 2,
       [anon_sym_LT_EQ, anon_sym_GT_EQ]), (ACTIONS 1271, 2, [anon_sym_LT_LT, anon_sym_GT_GT_GT]),
       (STATE 502, 2, [sym_comment, sym_documentation_comment]), (ACTIONS 1408, 4,
       [anon_sym_SLASH, anon_sym_BANG, anon_sym_DOT, anon_sym_QMARK_DOT]), (ACTIONS 1406, 17,
       [anon_sym_RBRACE, anon_sym_LBRACK, anon_sym_COMMA, anon_sym_RBRACK, anon_sym_COLON,
       anon_sym_LPAREN, anon_sym_RPAREN, anon_sym_STAR, anon_sym_PERCENT, anon_sym_TILDE_SLASH,
       anon_sym_DOT_DOT, anon_sym_QMARK_DOT_DOT, anon_sym_SEMI, anon_sym_EQ_GT, anon_sym_when,
       anon_sym_case, anon_sym_else])])]"

lemma small_run_9: "small_run 502 1004 ts_small_parse_table_9 503 1151"
  by (simp add: small_simps ts_small_parse_table_9_def)

definition ts_small_parse_table_10 :: "small_group list" where
  "ts_small_parse_table_10 = [
     (1151, 41, [(ACTIONS 3, 1, [anon_sym_SLASH_SLASH]), (ACTIONS 5, 1, [anon_sym_SLASH_STAR]),
       (ACTIONS 7, 1, [anon_sym_SLASH_SLASH_SLASH]), (ACTIONS 9, 1, [sym__block_comment]),
       (ACTIONS 11, 1, [sym__documentation_block_comment]), (ACTIONS 1259, 1,
       [anon_sym_QMARK_QMARK]), (ACTIONS 1261, 1, [anon_sym_QMARK]), (ACTIONS 1263, 1,
       [sym_equality_operator]), (ACTIONS 1265, 1, [anon_sym_PIPE]), (ACTIONS 1267, 1,
       [anon_sym_CARET]), (ACTIONS 1269, 1, [anon_sym_AMP]), (ACTIONS 1273, 1, [anon_sym_GT_GT]),
       (ACTIONS 1275, 1, [sym__additive_operator]), (ACTIONS 1279, 1, [anon_sym_is]), (ACTIONS
       1281, 1, [anon_sym_as]), (ACTIONS 1286, 1, [anon_sym_AMP_AMP]), (ACTIONS 1288, 1,
       [anon_sym_PIPE_PIPE]), (STATE 329, 1, [sym_relational_operator]), (STATE 343, 1,
       [sym_shift_operator]), (STATE 365, 1, [sym_logical_or_operator]), (STATE 366, 1,
       [sym_logical_and_operator]), (STATE 368, 1, [sym_additive_operator]), (STATE 792, 1,
       [aux_sym_shift_expression_repeat1]), (STATE 833, 1,
       [aux_sym_additive_expression_repeat1]), (STATE 834, 1,
       [aux_sym_logical_or_expression_repeat1]), (STATE 835, 1,
       [aux_sym_logical_and_expression_repeat1]), (STATE 839, 1,
       [aux_sym_bitwise_or_expression_repeat1]), (STATE 840, 1,
       [aux_sym_bitwise_xor_expression_repeat1]), (STATE 841, 1,
       [aux_sym_bitwise_and_expression_repeat1]), (STATE 884, 1, [aux_sym__if_null_expression]),
       (STATE 956, 1, [sym_type_cast]), (STATE 957, 1, [sym_type_test]), (STATE 1397, 1,
       [sym__shift_operator]), (STATE 2089, 1, [sym_is_operator]), (STATE 2090, 1,
       [sym_as_operator]), (ACTIONS 400, 2, [anon_sym_LT, anon_sym_GT]), (ACTIONS 402, 2,
       [anon_sym_LT_EQ, anon_sym_GT_EQ]), (ACTIONS 1271, 2, [anon_sym_LT_LT, anon_sym_GT_GT_GT]),
       (STATE 503, 2, [sym_comment, sym_documentation_comment]), (ACTIONS 1412, 4,
       [anon_sym_SLASH, anon_sym_BANG, anon_sym_DOT, anon_sym_QMARK_DOT]), (ACTIONS 1410, 17,
       [anon_sym_RBRACE, anon_sym_LBRACK, anon_sym_COMMA, anon_sym_RBRACK, anon_sym_COLON,
       anon_sym_LPAREN, anon_sym_RPAREN, anon_sym_STAR, anon_sym_PERCENT, anon_sym_TILDE_SLASH,
       anon_sym_DOT_DOT, anon_sym_QMARK_DOT_DOT, anon_sym_SEMI, anon_sym_EQ_GT, anon_sym_when,
       anon_sym_case, anon_sym_else])])]"

lemma small_run_10: "small_run 503 1151 ts_small_parse_table_10 504 1298"
  by (simp add: small_simps ts_small_parse_table_10_def)

definition ts_small_parse_table_11 :: "small_group list" where
  "ts_small_parse_table_11 = [
     (1298, 41, [(ACTIONS 3, 1, [anon_sym_SLASH_SLASH]), (ACTIONS 5, 1, [anon_sym_SLASH_STAR]),
       (ACTIONS 7, 1, [anon_sym_SLASH_SLASH_SLASH]), (ACTIONS 9, 1, [sym__block_comment]),
       (ACTIONS 11, 1, [sym__documentation_block_comment]), (ACTIONS 1259, 1,
       [anon_sym_QMARK_QMARK]), (ACTIONS 1261, 1, [anon_sym_QMARK]), (ACTIONS 1263, 1,
       [sym_equality_operator]), (ACTIONS 1265, 1, [anon_sym_PIPE]), (ACTIONS 1267, 1,
       [anon_sym_CARET]), (ACTIONS 1269, 1, [anon_sym_AMP]), (ACTIONS 1273, 1, [anon_sym_GT_GT]),
       (ACTIONS 1275, 1, [sym__additive_operator]), (ACTIONS 1279, 1, [anon_sym_is]), (ACTIONS
       1281, 1, [anon_sym_as]), (ACTIONS 1286, 1, [anon_sym_AMP_AMP]), (ACTIONS 1288, 1,
       [anon_sym_PIPE_PIPE]), (STATE 329, 1, [sym_relational_operator]), (STATE 343, 1,
       [sym_shift_operator]), (STATE 365, 1, [sym_logical_or_operator]), (STATE 366, 1,
       [sym_logical_and_operator]), (STATE 368, 1, [sym_additive_operator]), (STATE 792, 1,
       [aux_sym_shift_expression_repeat1]), (STATE 833, 1,
       [aux_sym_additive_expression_repeat1]), (STATE 834, 1,
       [aux_sym_logical_or_expression_repeat1]), (STATE 835, 1,
       [aux_sym_logical_and_expression_repeat1]), (STATE 839, 1,
       [aux_sym_bitwise_or_expression_repeat1]), (STATE 840, 1,
       [aux_sym_bitwise_xor_expression_repeat1]), (STATE 841, 1,
       [aux_sym_bitwise_and_expression_repeat1]), (STATE 884, 1, [aux_sym__if_null_expression]),
       (STATE 956, 1, [sym_type_cast]), (STATE 957, 1, [sym_type_test]), (STATE 1397, 1,
       [sym__shift_operator]), (STATE 2089, 1, [sym_is_operator]), (STATE 2090, 1,
       [sym_as_operator]), (ACTIONS 400, 2, [anon_sym_LT, anon_sym_GT]), (ACTIONS 402, 2,
       [anon_sym_LT_EQ, anon_sym_GT_EQ]), (ACTIONS 1271, 2, [anon_sym_LT_LT, anon_sym_GT_GT_GT]),
       (STATE 504, 2, [sym_comment, sym_documentation_comment]), (ACTIONS 1416, 4,
       [anon_sym_SLASH, anon_sym_BANG, anon_sym_DOT, anon_sym_QMARK_DOT]), (ACTIONS 1414, 17,
       [anon_sym_RBRACE, anon_sym_LBRACK, anon_sym_COMMA, anon_sym_RBRACK, anon_sym_COLON,
       anon_sym_LPAREN, anon_sym_RPAREN, anon_sym_STAR, anon_sym_PERCENT, anon_sym_TILDE_SLASH,
       anon_sym_DOT_DOT, anon_sym_QMARK_DOT_DOT, anon_sym_SEMI, anon_sym_EQ_GT, anon_sym_when,
       anon_sym_case, anon_sym_else])])]"

lemma small_run_11: "small_run 504 1298 ts_small_parse_table_11 505 1445"
  by (simp add: small_simps ts_small_parse_table_11_def)

definition ts_small_parse_table_12 :: "small_group list" where
  "ts_small_parse_table_12 = [
     (1445, 41, [(ACTIONS 3, 1, [anon_sym_SLASH_SLASH]), (ACTIONS 5, 1, [anon_sym_SLASH_STAR]),
       (ACTIONS 7, 1, [anon_sym_SLASH_SLASH_SLASH]), (ACTIONS 9, 1, [sym__block_comment]),
       (ACTIONS 11, 1, [sym__documentation_block_comment]), (ACTIONS 1259, 1,
       [anon_sym_QMARK_QMARK]), (ACTIONS 1261, 1, [anon_sym_QMARK]), (ACTIONS 1263, 1,
       [sym_equality_operator]), (ACTIONS 1265, 1, [anon_sym_PIPE]), (ACTIONS 1267, 1,
       [anon_sym_CARET]), (ACTIONS 1269, 1, [anon_sym_AMP]), (ACTIONS 1273, 1, [anon_sym_GT_GT]),
       (ACTIONS 1275, 1, [sym__additive_operator]), (ACTIONS 1279, 1, [anon_sym_is]), (ACTIONS
       1281, 1, [anon_sym_as]), (ACTIONS 1286, 1, [anon_sym_AMP_AMP]), (ACTIONS 1288, 1,
       [anon_sym_PIPE_PIPE]), (STATE 329, 1, [sym_relational_operator]), (STATE 343, 1,
       [sym_shift_operator]), (STATE 365, 1, [sym_logical_or_operator]), (STATE 366, 1,
       [sym_logical_and_operator]), (STATE 368, 1, [sym_additive_operator]), (STATE 792, 1,
       [aux_sym_shift_expression_repeat1]), (STATE 833, 1,
       [aux_sym_additive_expression_repeat1]), (STATE 834, 1,
       [aux_sym_logical_or_expression_repeat1]), (STATE 835, 1,
       [aux_sym_logical_and_expression_repeat1]), (STATE 839, 1,
       [aux_sym_bitwise_or_expression_repeat1]), (STATE 840, 1,
       [aux_sym_bitwise_xor_expression_repeat1]), (STATE 841, 1,
       [aux_sym_bitwise_and_expression_repeat1]), (STATE 884, 1, [aux_sym__if_null_expression]),
       (STATE 956, 1, [sym_type_cast]), (STATE 957, 1, [sym_type_test]), (STATE 1397, 1,
       [sym__shift_operator]), (STATE 2089, 1, [sym_is_operator]), (STATE 2090, 1,
       [sym_as_operator]), (ACTIONS 400, 2, [anon_sym_LT, anon_sym_GT]), (ACTIONS 402, 2,
       [anon_sym_LT_EQ, anon_sym_GT_EQ]), (ACTIONS 1271, 2, [anon_sym_LT_LT, anon_sym_GT_GT_GT]),
       (STATE 505, 2, [sym_comment, sym_documentation_comment]), (ACTIONS 1420, 4,
       [anon_sym_SLASH, anon_sym_BANG, anon_sym_DOT, anon_sym_QMARK_DOT]), (ACTIONS 1418, 17,
       [anon_sym_RBRACE, anon_sym_LBRACK, anon_sym_COMMA, anon_sym_RBRACK, anon_sym_COLON,
       anon_sym_LPAREN, anon_sym_RPAREN, anon_sym_STAR, anon_sym_PERCENT, anon_sym_TILDE_SLASH,
       anon_sym_DOT_DOT, anon_sym_QMARK_DOT_DOT, anon_sym_SEMI, anon_sym_EQ_GT, anon_sym_when,
       anon_sym_case, anon_sym_else])])]"

lemma small_run_12: "small_run 505 1445 ts_small_parse_table_12 506 1592"
  by (simp add: small_simps ts_small_parse_table_12_def)

definition ts_small_parse_table_13 :: "small_group list" where
  "ts_small_parse_table_13 = [
     (1592, 36, [(ACTIONS 3, 1, [anon_sym_SLASH_SLASH]), (ACTIONS 5, 1, [anon_sym_SLASH_STAR]),
       (ACTIONS 7, 1, [anon_sym_SLASH_SLASH_SLASH]), (ACTIONS 9, 1, [sym__block_comment]),
       (ACTIONS 11, 1, [sym__documentation_block_comment]), (ACTIONS 1265, 1, [anon_sym_PIPE]),
       (ACTIONS 1267, 1, [anon_sym_CARET]), (ACTIONS 1269, 1, [anon_sym_AMP]), (ACTIONS 1273, 1,
       [anon_sym_GT_GT]), (ACTIONS 1275, 1, [sym__additive_operator]), (ACTIONS 1279, 1,
       [anon_sym_is]), (ACTIONS 1281, 1, [anon_sym_as]), (STATE 329, 1,
       [sym_relational_operator]), (STATE 343, 1, [sym_shift_operator]), (STATE 365, 1,
       [sym_logical_or_operator]), (STATE 366, 1, [sym_logical_and_operator]), (STATE 368, 1,
       [sym_additive_operator]), (STATE 792, 1, [aux_sym_shift_expression_repeat1]), (STATE 833,
       1, [aux_sym_additive_expression_repeat1]), (STATE 834, 1,
       [aux_sym_logical_or_expression_repeat1]), (STATE 835, 1,
       [aux_sym_logical_and_expression_repeat1]), (STATE 839, 1,
       [aux_sym_bitwise_or_expression_repeat1]), (STATE 840, 1,
       [aux_sym_bitwise_xor_expression_repeat1]), (STATE 841, 1,
       [aux_sym_bitwise_and_expression_repeat1]), (STATE 884, 1, [aux_sym__if_null_expression]),
       (STATE 956, 1, [sym_type_cast]), (STATE 957, 1, [sym_type_test]), (STATE 1397, 1,
       [sym__shift_operator]), (STATE 2089, 1, [sym_is_operator]), (STATE 2090, 1,
       [sym_as_operator]), (ACTIONS 1271, 2, [anon_sym_LT_LT, anon_sym_GT_GT_GT]), (ACTIONS 1426,
       2, [anon_sym_LT, anon_sym_GT]), (ACTIONS 1429, 2, [anon_sym_LT_EQ, anon_sym_GT_EQ]),
       (STATE 506, 2, [sym_comment, sym_documentation_comment]), (ACTIONS 1424, 5,
       [anon_sym_QMARK, anon_sym_SLASH, anon_sym_BANG, anon_sym_DOT, anon_sym_QMARK_DOT]),
       (ACTIONS 1422, 21, [anon_sym_RBRACE, anon_sym_LBRACK, anon_sym_COMMA, anon_sym_RBRACK,
       anon_sym_COLON, anon_sym_LPAREN, anon_sym_RPAREN, anon_sym_QMARK_QMARK,
       sym_equality_operator, anon_sym_STAR, anon_sym_PERCENT, anon_sym_TILDE_SLASH,
       anon_sym_DOT_DOT, anon_sym_QMARK_DOT_DOT, anon_sym_SEMI, anon_sym_EQ_GT, anon_sym_when,
       anon_sym_case, anon_sym_else, anon_sym_AMP_AMP, anon_sym_PIPE_PIPE])])]"

lemma small_run_13: "small_run 506 1592 ts_small_parse_table_13 507 1729"
  by (simp add: small_simps ts_small_parse_table_13_def)

definition ts_small_parse_table_14 :: "small_group list" where
  "ts_small_parse_table_14 = [
     (1729, 41, [(ACTIONS 3, 1, [anon_sym_SLASH_SLASH]), (ACTIONS 5, 1, [anon_sym_SLASH_STAR]),
       (ACTIONS 7, 1, [anon_sym_SLASH_SLASH_SLASH]), (ACTIONS 9, 1, [sym__block_comment]),
       (ACTIONS 11, 1, [sym__documentation_block_comment]), (ACTIONS 1259, 1,
       [anon_sym_QMARK_QMARK]), (ACTIONS 1261, 1, [anon_sym_QMARK]), (ACTIONS 1263, 1,
       [sym_equality_operator]), (ACTIONS 1265, 1, [anon_sym_PIPE]), (ACTIONS 1267, 1,
       [anon_sym_CARET]), (ACTIONS 1269, 1, [anon_sym_AMP]), (ACTIONS 1273, 1, [anon_sym_GT_GT]),
       (ACTIONS 1275, 1, [sym__additive_operator]), (ACTIONS 1279, 1, [anon_sym_is]), (ACTIONS
       1281, 1, [anon_sym_as]), (ACTIONS 1286, 1, [anon_sym_AMP_AMP]), (ACTIONS 1288, 1,
       [anon_sym_PIPE_PIPE]), (STATE 329, 1, [sym_relational_operator]), (STATE 343, 1,
       [sym_shift_operator]), (STATE 365, 1, [sym_logical_or_operator]), (STATE 366, 1,
       [sym_logical_and_operator]), (STATE 368, 1, [sym_additive_operator]), (STATE 792, 1,
       [aux_sym_shift_expression_repeat1]), (STATE 833, 1,
       [aux_sym_additive_expression_repeat1]), (STATE 834, 1,
       [aux_sym_logical_or_expression_repeat1]), (STATE 835, 1,
       [aux_sym_logical_and_expression_repeat1]), (STATE 839, 1,
       [aux_sym_bitwise_or_expression_repeat1]), (STATE 840, 1,
       [aux_sym_bitwise_xor_expression_repeat1]), (STATE 841, 1,
       [aux_sym_bitwise_and_expression_repeat1]), (STATE 884, 1, [aux_sym__if_null_expression]),
       (STATE 956, 1, [sym_type_cast]), (STATE 957, 1, [sym_type_test]), (STATE 1397, 1,
       [sym__shift_operator]), (STATE 2089, 1, [sym_is_operator]), (STATE 2090, 1,
       [sym_as_operator]), (ACTIONS 400, 2, [anon_sym_LT, anon_sym_GT]), (ACTIONS 402, 2,
       [anon_sym_LT_EQ, anon_sym_GT_EQ]), (ACTIONS 1271, 2, [anon_sym_LT_LT, anon_sym_GT_GT_GT]),
       (STATE 507, 2, [sym_comment, sym_documentation_comment]), (ACTIONS 1434, 4,
       [anon_sym_SLASH, anon_sym_BANG, anon_sym_DOT, anon_sym_QMARK_DOT]), (ACTIONS 1432, 17,
       [anon_sym_RBRACE, anon_sym_LBRACK, anon_sym_COMMA, anon_sym_RBRACK, anon_sym_COLON,
       anon_sym_LPAREN, anon_sym_RPAREN, anon_sym_STAR, anon_sym_PERCENT, anon_sym_TILDE_SLASH,
       anon_sym_DOT_DOT, anon_sym_QMARK_DOT_DOT, anon_sym_SEMI, anon_sym_EQ_GT, anon_sym_when,
       anon_sym_case, anon_sym_else])])]"

lemma small_run_14: "small_run 507 1729 ts_small_parse_table_14 508 1876"
  by (simp add: small_simps ts_small_parse_table_14_def)

definition ts_small_parse_table_15 :: "small_group list" where
  "ts_small_parse_table_15 = [
     (1876, 44, [(ACTIONS 3, 1, [anon_sym_SLASH_SLASH]), (ACTIONS 5, 1, [anon_sym_SLASH_STAR]),
       (ACTIONS 7, 1, [anon_sym_SLASH_SLASH_SLASH]), (ACTIONS 9, 1, [sym__block_comment]),
       (ACTIONS 11, 1, [sym__documentation_block_comment]), (ACTIONS 1273, 1, [anon_sym_GT_GT]),
       (ACTIONS 1275, 1, [sym__additive_operator]), (ACTIONS 1279, 1, [anon_sym_is]), (ACTIONS
       1286, 1, [anon_sym_AMP_AMP]), (ACTIONS 1288, 1, [anon_sym_PIPE_PIPE]), (ACTIONS 1436, 1,
       [anon_sym_QMARK_QMARK]), (ACTIONS 1438, 1, [anon_sym_QMARK]), (ACTIONS 1440, 1,
       [sym_equality_operator]), (ACTIONS 1442, 1, [anon_sym_PIPE]), (ACTIONS 1444, 1,
       [anon_sym_CARET]), (ACTIONS 1446, 1, [anon_sym_AMP]), (ACTIONS 1448, 1, [anon_sym_as]),
       (STATE 317, 1, [sym_relational_operator]), (STATE 319, 1, [sym_shift_operator]), (STATE
       321, 1, [sym_additive_operator]), (STATE 334, 1, [sym_logical_and_operator]), (STATE 336,
       1, [sym_logical_or_operator]), (STATE 987, 1, [aux_sym_shift_expression_repeat1]), (STATE
       1005, 1, [aux_sym_additive_expression_repeat1]), (STATE 1008, 1,
       [aux_sym_logical_and_expression_repeat1]), (STATE 1010, 1,
       [aux_sym_logical_or_expression_repeat1]), (STATE 1012, 1, [aux_sym__expression_repeat1]),
       (STATE 1054, 1, [aux_sym__if_null_expression]), (STATE 1063, 1,
       [aux_sym_bitwise_xor_expression_repeat1]), (STATE 1072, 1,
       [aux_sym_bitwise_or_expression_repeat1]), (STATE 1084, 1,
       [aux_sym_bitwise_and_expression_repeat1]), (STATE 1118, 1, [sym_type_cast]), (STATE 1133,
       1, [sym_cascade_section]), (STATE 1143, 1, [sym_type_test]), (STATE 1397, 1,
       [sym__shift_operator]), (STATE 2064, 1, [sym_as_operator]), (STATE 2066, 1,
       [sym_is_operator]), (ACTIONS 400, 2, [anon_sym_LT, anon_sym_GT]), (ACTIONS 402, 2,
       [anon_sym_LT_EQ, anon_sym_GT_EQ]), (ACTIONS 1271, 2, [anon_sym_LT_LT, anon_sym_GT_GT_GT]),
       (ACTIONS 1450, 2, [anon_sym_DOT_DOT, anon_sym_QMARK_DOT_DOT]), (STATE 508, 2,
       [sym_comment, sym_documentation_comment]), (ACTIONS 1277, 5, [anon_sym_SLASH,
       anon_sym_BANG, anon_sym_DOT, anon_sym_QMARK_DOT, anon_sym_async]), (ACTIONS 1257, 11,
       [anon_sym_LBRACE, anon_sym_LBRACK, anon_sym_COMMA, anon_sym_LPAREN, anon_sym_STAR,
       anon_sym_PERCENT, anon_sym_TILDE_SLASH, anon_sym_SEMI, anon_sym_EQ_GT,
       anon_sym_async_STAR, anon_sym_sync_STAR])])]"

lemma small_run_15: "small_run 508 1876 ts_small_parse_table_15 509 2028"
  by (simp add: small_simps ts_small_parse_table_15_def)

definition ts_small_parse_table_16 :: "small_group list" where
  "ts_small_parse_table_16 = [
     (2028, 16, [(ACTIONS 3, 1, [anon_sym_SLASH_SLASH]), (ACTIONS 5, 1, [anon_sym_SLASH_STAR]),
       (ACTIONS 7, 1, [anon_sym_SLASH_SLASH_SLASH]), (ACTIONS 9, 1, [sym__block_comment]),
       (ACTIONS 11, 1, [sym__documentation_block_comment]), (ACTIONS 1453, 1, [anon_sym_LBRACK]),
       (ACTIONS 1456, 1, [anon_sym_QMARK]), (ACTIONS 1459, 1, [anon_sym_DOT]), (ACTIONS 1462, 1,
       [anon_sym_QMARK_DOT]), (STATE 561, 1, [sym__assignable_selector]), (STATE 649, 1,
       [sym_index_selector]), (STATE 652, 1, [sym__cascade_subsection]), (STATE 641, 2,
       [sym_unconditional_assignable_selector, sym_conditional_assignable_selector]), (STATE 509,
       3, [sym_comment, sym_documentation_comment, aux_sym_cascade_section_repeat2]), (ACTIONS
       1297, 18, [anon_sym_EQ, anon_sym_QMARK_QMARK, anon_sym_LT, anon_sym_GT, anon_sym_PIPE,
       anon_sym_CARET, anon_sym_AMP, anon_sym_LT_LT, anon_sym_GT_GT, anon_sym_GT_GT_GT,
       sym__additive_operator, anon_sym_STAR, anon_sym_SLASH, anon_sym_PERCENT,
       anon_sym_TILDE_SLASH, anon_sym_BANG, anon_sym_as, anon_sym_async]), (ACTIONS 1292, 28,
       [anon_sym_LBRACE, anon_sym_COMMA, anon_sym_LPAREN, anon_sym_PLUS_EQ, anon_sym_DASH_EQ,
       anon_sym_STAR_EQ, anon_sym_SLASH_EQ, anon_sym_PERCENT_EQ, anon_sym_TILDE_SLASH_EQ,
       anon_sym_LT_LT_EQ, anon_sym_GT_GT_EQ, anon_sym_GT_GT_GT_EQ, anon_sym_AMP_EQ,
       anon_sym_CARET_EQ, anon_sym_PIPE_EQ, anon_sym_QMARK_QMARK_EQ, sym_equality_operator,
       anon_sym_LT_EQ, anon_sym_GT_EQ, anon_sym_is, anon_sym_DOT_DOT, anon_sym_QMARK_DOT_DOT,
       anon_sym_SEMI, anon_sym_EQ_GT, anon_sym_async_STAR, anon_sym_sync_STAR, anon_sym_AMP_AMP,
       anon_sym_PIPE_PIPE])])]"

lemma small_run_16: "small_run 509 2028 ts_small_parse_table_16 510 2124"
  by (simp add: small_simps ts_small_parse_table_16_def)

definition ts_small_parse_table_17 :: "small_group list" where
  "ts_small_parse_table_17 = [
     (2124, 44, [(ACTIONS 3, 1, [anon_sym_SLASH_SLASH]), (ACTIONS 5, 1, [anon_sym_SLASH_STAR]),
       (ACTIONS 7, 1, [anon_sym_SLASH_SLASH_SLASH]), (ACTIONS 9, 1, [sym__block_comment]),
       (ACTIONS 11, 1, [sym__documentation_block_comment]), (ACTIONS 1259, 1,
       [anon_sym_QMARK_QMARK]), (ACTIONS 1261, 1, [anon_sym_QMARK]), (ACTIONS 1263, 1,
       [sym_equality_operator]), (ACTIONS 1265, 1, [anon_sym_PIPE]), (ACTIONS 1267, 1,
       [anon_sym_CARET]), (ACTIONS 1269, 1, [anon_sym_AMP]), (ACTIONS 1273, 1, [anon_sym_GT_GT]),
       (ACTIONS 1275, 1, [sym__additive_operator]), (ACTIONS 1279, 1, [anon_sym_is]), (ACTIONS
       1281, 1, [anon_sym_as]), (ACTIONS 1286, 1, [anon_sym_AMP_AMP]), (ACTIONS 1288, 1,
       [anon_sym_PIPE_PIPE]), (STATE 329, 1, [sym_relational_operator]), (STATE 343, 1,
       [sym_shift_operator]), (STATE 365, 1, [sym_logical_or_operator]), (STATE 366, 1,
       [sym_logical_and_operator]), (STATE 368, 1, [sym_additive_operator]), (STATE 792, 1,
       [aux_sym_shift_expression_repeat1]), (STATE 833, 1,
       [aux_sym_additive_expression_repeat1]), (STATE 834, 1,
       [aux_sym_logical_or_expression_repeat1]), (STATE 835, 1,
       [aux_sym_logical_and_expression_repeat1]), (STATE 839, 1,
       [aux_sym_bitwise_or_expression_repeat1]), (STATE 840, 1,
       [aux_sym_bitwise_xor_expression_repeat1]), (STATE 841, 1,
       [aux_sym_bitwise_and_expression_repeat1]), (STATE 884, 1, [aux_sym__if_null_expression]),
       (STATE 914, 1, [sym_cascade_section]), (STATE 956, 1, [sym_type_cast]), (STATE 957, 1,
       [sym_type_test]), (STATE 1007, 1, [aux_sym__expression_repeat1]), (STATE 1397, 1,
       [sym__shift_operator]), (STATE 2089, 1, [sym_is_operator]), (STATE 2090, 1,
       [sym_as_operator]), (ACTIONS 400, 2, [anon_sym_LT, anon_sym_GT]), (ACTIONS 402, 2,
       [anon_sym_LT_EQ, anon_sym_GT_EQ]), (ACTIONS 1271, 2, [anon_sym_LT_LT, anon_sym_GT_GT_GT]),
       (ACTIONS 1465, 2, [anon_sym_DOT_DOT, anon_sym_QMARK_DOT_DOT]), (STATE 510, 2,
       [sym_comment, sym_documentation_comment]), (ACTIONS 1277, 4, [anon_sym_SLASH,
       anon_sym_BANG, anon_sym_DOT, anon_sym_QMARK_DOT]), (ACTIONS 1257, 12, [anon_sym_RBRACE,
       anon_sym_LBRACK, anon_sym_COMMA, anon_sym_RBRACK, anon_sym_COLON, anon_sym_LPAREN,
       anon_sym_RPAREN, anon_sym_STAR, anon_sym_PERCENT, anon_sym_TILDE_SLASH, anon_sym_EQ_GT,
       anon_sym_when])])]"

lemma small_run_17: "small_run 510 2124 ts_small_parse_table_17 511 2276"
  by (simp add: small_simps ts_small_parse_table_17_def)

definition ts_small_parse_table_18 :: "small_group list" where
  "ts_small_parse_table_18 = [
     (2276, 8, [(ACTIONS 3, 1, [anon_sym_SLASH_SLASH]), (ACTIONS 5, 1, [anon_sym_SLASH_STAR]),
       (ACTIONS 7, 1, [anon_sym_SLASH_SLASH_SLASH]), (ACTIONS 9, 1, [sym__block_comment]),
       (ACTIONS 11, 1, [sym__documentation_block_comment]), (STATE 511, 2, [sym_comment,
       sym_documentation_comment]), (ACTIONS 1469, 16, [anon_sym_POUND, sym_hex_integer_literal,
       anon_sym_DQUOTE_DQUOTE_DQUOTE, anon_sym_SQUOTE_SQUOTE_SQUOTE,
       anon_sym_r_DQUOTE_DQUOTE_DQUOTE, anon_sym_r_SQUOTE_SQUOTE_SQUOTE, anon_sym_LBRACE,
       anon_sym_RBRACE, anon_sym_LBRACK, anon_sym_LPAREN, anon_sym_LT, sym_increment_operator,
       anon_sym_BANG, anon_sym_TILDE, anon_sym_SEMI, anon_sym_AT]), (ACTIONS 1467, 40,
       [sym_decimal_integer_literal, sym_decimal_floating_point_literal, anon_sym_true,
       anon_sym_false, anon_sym_DQUOTE, anon_sym_SQUOTE, anon_sym_r_DQUOTE, anon_sym_r_SQUOTE,
       anon_sym_null, anon_sym_throw, sym_minus_operator, anon_sym_await, anon_sym_switch,
       anon_sym_default, anon_sym_do, anon_sym_while, anon_sym_continue, anon_sym_yield,
       anon_sym_return, anon_sym_try, anon_sym_if, anon_sym_case, anon_sym_else, anon_sym_for,
       anon_sym_final, sym_void_type, anon_sym_var, sym_break_builtin, sym_assert_builtin,
       sym_rethrow_builtin, anon_sym_covariant, anon_sym_Function, anon_sym_get, anon_sym_set,
       anon_sym_new, sym_const_builtin, anon_sym_late, anon_sym_this, anon_sym_super,
       sym_identifier])]),
     (2356, 8, [(ACTIONS 3, 1, [anon_sym_SLASH_SLASH]), (ACTIONS 5, 1, [anon_sym_SLASH_STAR]),
       (ACTIONS 7, 1, [anon_sym_SLASH_SLASH_SLASH]), (ACTIONS 9, 1, [sym__block_comment]),
       (ACTIONS 11, 1, [sym__documentation_block_comment]), (STATE 512, 2, [sym_comment,
       sym_documentation_comment]), (ACTIONS 1473, 16, [anon_sym_POUND, sym_hex_integer_literal,
       anon_sym_DQUOTE_DQUOTE_DQUOTE, anon_sym_SQUOTE_SQUOTE_SQUOTE,
       anon_sym_r_DQUOTE_DQUOTE_DQUOTE, anon_sym_r_SQUOTE_SQUOTE_SQUOTE, anon_sym_LBRACE,
       anon_sym_RBRACE, anon_sym_LBRACK, anon_sym_LPAREN, anon_sym_LT, sym_increment_operator,
       anon_sym_BANG, anon_sym_TILDE, anon_sym_SEMI, anon_sym_AT]), (ACTIONS 1471, 40,
       [sym_decimal_integer_literal, sym_decimal_floating_point_literal, anon_sym_true,
       anon_sym_false, anon_sym_DQUOTE, anon_sym_SQUOTE, anon_sym_r_DQUOTE, anon_sym_r_SQUOTE,
       anon_sym_null, anon_sym_throw, sym_minus_operator, anon_sym_await, anon_sym_switch,
       anon_sym_default, anon_sym_do, anon_sym_while, anon_sym_continue, anon_sym_yield,
       anon_sym_return, anon_sym_try, anon_sym_if, anon_sym_case, anon_sym_else, anon_sym_for,
       anon_sym_final, sym_void_type, anon_sym_var, sym_break_builtin, sym_assert_builtin,
       sym_rethrow_builtin, anon_sym_covariant, anon_sym_Function, anon_sym_get, anon_sym_set,
       anon_sym_new, sym_const_builtin, anon_sym_late, anon_sym_this, anon_sym_super,
       sym_identifier])])]"

lemma small_run_18: "small_run 511 2276 ts_small_parse_table_18 513 2436"
  by (simp add: small_simps ts_small_parse_table_18_def)

definition ts_small_parse_table_19 :: "small_group list" where
  "ts_small_parse_table_19 = [
     (2436, 24, [(ACTIONS 3, 1, [anon_sym_SLASH_SLASH]), (ACTIONS 5, 1, [anon_sym_SLASH_STAR]),
       (ACTIONS 7, 1, [anon_sym_SLASH_SLASH_SLASH]), (ACTIONS 9, 1, [sym__block_comment]),
       (ACTIONS 11, 1, [sym__documentation_block_comment]), (ACTIONS 1324, 1, [anon_sym_LPAREN]),
       (ACTIONS 1328, 1, [anon_sym_EQ]), (ACTIONS 1337, 1, [anon_sym_LT]), (ACTIONS 1341, 1,
       [anon_sym_DOT]), (ACTIONS 1480, 1, [anon_sym_COLON]), (ACTIONS 1482, 1, [anon_sym_QMARK]),
       (STATE 1612, 1, [sym__type_dot_identifier]), (STATE 2016, 1,
       [sym__strict_formal_parameter_list]), (STATE 2020, 1, [sym_formal_parameter_list]), (STATE
       2275, 1, [sym__formal_parameter_part]), (STATE 2932, 1, [sym_type_parameters]), (ACTIONS
       1475, 2, [anon_sym_COMMA, anon_sym_RPAREN]), (ACTIONS 1486, 2, [anon_sym_BANG,
       anon_sym_as]), (ACTIONS 1489, 2, [anon_sym_AMP_AMP, anon_sym_PIPE_PIPE]), (STATE 513, 2,
       [sym_comment, sym_documentation_comment]), (ACTIONS 1320, 4, [anon_sym_Function,
       anon_sym_this, anon_sym_super, sym_identifier]), (ACTIONS 1322, 6, [anon_sym_LBRACK,
       sym_equality_operator, anon_sym_LT_EQ, anon_sym_GT_EQ, anon_sym_DOT_DOT,
       anon_sym_QMARK_DOT_DOT]), (ACTIONS 1330, 14, [anon_sym_PLUS_EQ, anon_sym_DASH_EQ,
       anon_sym_STAR_EQ, anon_sym_SLASH_EQ, anon_sym_PERCENT_EQ, anon_sym_TILDE_SLASH_EQ,
       anon_sym_LT_LT_EQ, anon_sym_GT_GT_EQ, anon_sym_GT_GT_GT_EQ, anon_sym_AMP_EQ,
       anon_sym_CARET_EQ, anon_sym_PIPE_EQ, anon_sym_QMARK_QMARK_EQ, sym_increment_operator]),
       (ACTIONS 1332, 15, [anon_sym_QMARK_QMARK, anon_sym_GT, anon_sym_PIPE, anon_sym_CARET,
       anon_sym_AMP, anon_sym_LT_LT, anon_sym_GT_GT, anon_sym_GT_GT_GT, sym__additive_operator,
       anon_sym_STAR, anon_sym_SLASH, anon_sym_PERCENT, anon_sym_TILDE_SLASH, anon_sym_is,
       anon_sym_QMARK_DOT])])]"

lemma small_run_19: "small_run 513 2436 ts_small_parse_table_19 514 2548"
  by (simp add: small_simps ts_small_parse_table_19_def)

definition ts_small_parse_table_20 :: "small_group list" where
  "ts_small_parse_table_20 = [
     (2548, 24, [(ACTIONS 3, 1, [anon_sym_SLASH_SLASH]), (ACTIONS 5, 1, [anon_sym_SLASH_STAR]),
       (ACTIONS 7, 1, [anon_sym_SLASH_SLASH_SLASH]), (ACTIONS 9, 1, [sym__block_comment]),
       (ACTIONS 11, 1, [sym__documentation_block_comment]), (ACTIONS 1324, 1, [anon_sym_LPAREN]),
       (ACTIONS 1328, 1, [anon_sym_EQ]), (ACTIONS 1337, 1, [anon_sym_LT]), (ACTIONS 1341, 1,
       [anon_sym_DOT]), (ACTIONS 1480, 1, [anon_sym_COLON]), (ACTIONS 1482, 1, [anon_sym_QMARK]),
       (STATE 1612, 1, [sym__type_dot_identifier]), (STATE 2016, 1,
       [sym__strict_formal_parameter_list]), (STATE 2020, 1, [sym_formal_parameter_list]), (STATE
       2275, 1, [sym__formal_parameter_part]), (STATE 2932, 1, [sym_type_parameters]), (ACTIONS
       1486, 2, [anon_sym_BANG, anon_sym_as]), (ACTIONS 1489, 2, [anon_sym_AMP_AMP,
       anon_sym_PIPE_PIPE]), (ACTIONS 1492, 2, [anon_sym_COMMA, anon_sym_RPAREN]), (STATE 514, 2,
       [sym_comment, sym_documentation_comment]), (ACTIONS 1320, 4, [anon_sym_Function,
       anon_sym_this, anon_sym_super, sym_identifier]), (ACTIONS 1322, 6, [anon_sym_LBRACK,
       sym_equality_operator, anon_sym_LT_EQ, anon_sym_GT_EQ, anon_sym_DOT_DOT,
       anon_sym_QMARK_DOT_DOT]), (ACTIONS 1330, 14, [anon_sym_PLUS_EQ, anon_sym_DASH_EQ,
       anon_sym_STAR_EQ, anon_sym_SLASH_EQ, anon_sym_PERCENT_EQ, anon_sym_TILDE_SLASH_EQ,
       anon_sym_LT_LT_EQ, anon_sym_GT_GT_EQ, anon_sym_GT_GT_GT_EQ, anon_sym_AMP_EQ,
       anon_sym_CARET_EQ, anon_sym_PIPE_EQ, anon_sym_QMARK_QMARK_EQ, sym_increment_operator]),
       (ACTIONS 1332, 15, [anon_sym_QMARK_QMARK, anon_sym_GT, anon_sym_PIPE, anon_sym_CARET,
       anon_sym_AMP, anon_sym_LT_LT, anon_sym_GT_GT, anon_sym_GT_GT_GT, sym__additive_operator,
       anon_sym_STAR, anon_sym_SLASH, anon_sym_PERCENT, anon_sym_TILDE_SLASH, anon_sym_is,
       anon_sym_QMARK_DOT])])]"

lemma small_run_20: "small_run 514 2548 ts_small_parse_table_20 515 2660"
  by (simp add: small_simps ts_small_parse_table_20_def)

definition ts_small_parse_table_21 :: "small_group list" where
  "ts_small_parse_table_21 = [
     (2660, 23, [(ACTIONS 3, 1, [anon_sym_SLASH_SLASH]), (ACTIONS 5, 1, [anon_sym_SLASH_STAR]),
       (ACTIONS 7, 1, [anon_sym_SLASH_SLASH_SLASH]), (ACTIONS 9, 1, [sym__block_comment]),
       (ACTIONS 11, 1, [sym__documentation_block_comment]), (ACTIONS 1324, 1, [anon_sym_LPAREN]),
       (ACTIONS 1337, 1, [anon_sym_LT]), (ACTIONS 1341, 1, [anon_sym_DOT]), (ACTIONS 1482, 1,
       [anon_sym_QMARK]), (ACTIONS 1496, 1, [anon_sym_EQ]), (STATE 1612, 1,
       [sym__type_dot_identifier]), (STATE 2016, 1, [sym__strict_formal_parameter_list]), (STATE
       2020, 1, [sym_formal_parameter_list]), (STATE 2275, 1, [sym__formal_parameter_part]),
       (STATE 2932, 1, [sym_type_parameters]), (ACTIONS 1486, 2, [anon_sym_BANG, anon_sym_as]),
       (ACTIONS 1489, 2, [anon_sym_AMP_AMP, anon_sym_PIPE_PIPE]), (ACTIONS 1492, 2,
       [anon_sym_COMMA, anon_sym_RBRACK]), (STATE 515, 2, [sym_comment,
       sym_documentation_comment]), (ACTIONS 1320, 4, [anon_sym_Function, anon_sym_this,
       anon_sym_super, sym_identifier]), (ACTIONS 1322, 7, [anon_sym_LBRACK, anon_sym_COLON,
       sym_equality_operator, anon_sym_LT_EQ, anon_sym_GT_EQ, anon_sym_DOT_DOT,
       anon_sym_QMARK_DOT_DOT]), (ACTIONS 1330, 14, [anon_sym_PLUS_EQ, anon_sym_DASH_EQ,
       anon_sym_STAR_EQ, anon_sym_SLASH_EQ, anon_sym_PERCENT_EQ, anon_sym_TILDE_SLASH_EQ,
       anon_sym_LT_LT_EQ, anon_sym_GT_GT_EQ, anon_sym_GT_GT_GT_EQ, anon_sym_AMP_EQ,
       anon_sym_CARET_EQ, anon_sym_PIPE_EQ, anon_sym_QMARK_QMARK_EQ, sym_increment_operator]),
       (ACTIONS 1332, 15, [anon_sym_QMARK_QMARK, anon_sym_GT, anon_sym_PIPE, anon_sym_CARET,
       anon_sym_AMP, anon_sym_LT_LT, anon_sym_GT_GT, anon_sym_GT_GT_GT, sym__additive_operator,
       anon_sym_STAR, anon_sym_SLASH, anon_sym_PERCENT, anon_sym_TILDE_SLASH, anon_sym_is,
       anon_sym_QMARK_DOT])])]"

lemma small_run_21: "small_run 515 2660 ts_small_parse_table_21 516 2770"
  by (simp add: small_simps ts_small_parse_table_21_def)

definition ts_small_parse_table_22 :: "small_group list" where
  "ts_small_parse_table_22 = [
     (2770, 21, [(ACTIONS 3, 1, [anon_sym_SLASH_SLASH]), (ACTIONS 5, 1, [anon_sym_SLASH_STAR]),
       (ACTIONS 7, 1, [anon_sym_SLASH_SLASH_SLASH]), (ACTIONS 9, 1, [sym__block_comment]),
       (ACTIONS 11, 1, [sym__documentation_block_comment]), (ACTIONS 1324, 1, [anon_sym_LPAREN]),
       (ACTIONS 1334, 1, [anon_sym_QMARK]), (ACTIONS 1337, 1, [anon_sym_LT]), (ACTIONS 1341, 1,
       [anon_sym_DOT]), (ACTIONS 1496, 1, [anon_sym_EQ]), (STATE 1612, 1,
       [sym__type_dot_identifier]), (STATE 2016, 1, [sym__strict_formal_parameter_list]), (STATE
       2020, 1, [sym_formal_parameter_list]), (STATE 2275, 1, [sym__formal_parameter_part]),
       (STATE 2932, 1, [sym_type_parameters]), (STATE 516, 2, [sym_comment,
       sym_documentation_comment]), (ACTIONS 1499, 3, [anon_sym_RBRACE, anon_sym_COMMA,
       anon_sym_COLON]), (ACTIONS 1320, 4, [anon_sym_Function, anon_sym_this, anon_sym_super,
       sym_identifier]), (ACTIONS 1322, 8, [anon_sym_LBRACK, sym_equality_operator,
       anon_sym_LT_EQ, anon_sym_GT_EQ, anon_sym_DOT_DOT, anon_sym_QMARK_DOT_DOT,
       anon_sym_AMP_AMP, anon_sym_PIPE_PIPE]), (ACTIONS 1330, 14, [anon_sym_PLUS_EQ,
       anon_sym_DASH_EQ, anon_sym_STAR_EQ, anon_sym_SLASH_EQ, anon_sym_PERCENT_EQ,
       anon_sym_TILDE_SLASH_EQ, anon_sym_LT_LT_EQ, anon_sym_GT_GT_EQ, anon_sym_GT_GT_GT_EQ,
       anon_sym_AMP_EQ, anon_sym_CARET_EQ, anon_sym_PIPE_EQ, anon_sym_QMARK_QMARK_EQ,
       sym_increment_operator]), (ACTIONS 1332, 17, [anon_sym_QMARK_QMARK, anon_sym_GT,
       anon_sym_PIPE, anon_sym_CARET, anon_sym_AMP, anon_sym_LT_LT, anon_sym_GT_GT,
       anon_sym_GT_GT_GT, sym__additive_operator, anon_sym_STAR, anon_sym_SLASH,
       anon_sym_PERCENT, anon_sym_TILDE_SLASH, anon_sym_BANG, anon_sym_is, anon_sym_as,
       anon_sym_QMARK_DOT])])]"

lemma small_run_22: "small_run 516 2770 ts_small_parse_table_22 517 2876"
  by (simp add: small_simps ts_small_parse_table_22_def)

definition ts_small_parse_table_23 :: "small_group list" where
  "ts_small_parse_table_23 = [
     (2876, 22, [(ACTIONS 3, 1, [anon_sym_SLASH_SLASH]), (ACTIONS 5, 1, [anon_sym_SLASH_STAR]),
       (ACTIONS 7, 1, [anon_sym_SLASH_SLASH_SLASH]), (ACTIONS 9, 1, [sym__block_comment]),
       (ACTIONS 11, 1, [sym__documentation_block_comment]), (ACTIONS 1324, 1, [anon_sym_LPAREN]),
       (ACTIONS 1328, 1, [anon_sym_EQ]), (ACTIONS 1334, 1, [anon_sym_QMARK]), (ACTIONS 1337, 1,
       [anon_sym_LT]), (ACTIONS 1341, 1, [anon_sym_DOT]), (ACTIONS 1502, 1, [anon_sym_COLON]),
       (STATE 1612, 1, [sym__type_dot_identifier]), (STATE 2016, 1,
       [sym__strict_formal_parameter_list]), (STATE 2020, 1, [sym_formal_parameter_list]), (STATE
       2275, 1, [sym__formal_parameter_part]), (STATE 2932, 1, [sym_type_parameters]), (ACTIONS
       1499, 2, [anon_sym_COMMA, anon_sym_RPAREN]), (STATE 517, 2, [sym_comment,
       sym_documentation_comment]), (ACTIONS 1320, 4, [anon_sym_Function, anon_sym_this,
       anon_sym_super, sym_identifier]), (ACTIONS 1322, 8, [anon_sym_LBRACK,
       sym_equality_operator, anon_sym_LT_EQ, anon_sym_GT_EQ, anon_sym_DOT_DOT,
       anon_sym_QMARK_DOT_DOT, anon_sym_AMP_AMP, anon_sym_PIPE_PIPE]), (ACTIONS 1330, 14,
       [anon_sym_PLUS_EQ, anon_sym_DASH_EQ, anon_sym_STAR_EQ, anon_sym_SLASH_EQ,
       anon_sym_PERCENT_EQ, anon_sym_TILDE_SLASH_EQ, anon_sym_LT_LT_EQ, anon_sym_GT_GT_EQ,
       anon_sym_GT_GT_GT_EQ, anon_sym_AMP_EQ, anon_sym_CARET_EQ, anon_sym_PIPE_EQ,
       anon_sym_QMARK_QMARK_EQ, sym_increment_operator]), (ACTIONS 1332, 17,
       [anon_sym_QMARK_QMARK, anon_sym_GT, anon_sym_PIPE, anon_sym_CARET, anon_sym_AMP,
       anon_sym_LT_LT, anon_sym_GT_GT, anon_sym_GT_GT_GT, sym__additive_operator, anon_sym_STAR,
       anon_sym_SLASH, anon_sym_PERCENT, anon_sym_TILDE_SLASH, anon_sym_BANG, anon_sym_is,
       anon_sym_as, anon_sym_QMARK_DOT])])]"

lemma small_run_23: "small_run 517 2876 ts_small_parse_table_23 518 2984"
  by (simp add: small_simps ts_small_parse_table_23_def)

definition ts_small_parse_table_24 :: "small_group list" where
  "ts_small_parse_table_24 = [
     (2984, 8, [(ACTIONS 3, 1, [anon_sym_SLASH_SLASH]), (ACTIONS 5, 1, [anon_sym_SLASH_STAR]),
       (ACTIONS 7, 1, [anon_sym_SLASH_SLASH_SLASH]), (ACTIONS 9, 1, [sym__block_comment]),
       (ACTIONS 11, 1, [sym__documentation_block_comment]), (STATE 518, 2, [sym_comment,
       sym_documentation_comment]), (ACTIONS 1506, 15, [anon_sym_POUND, sym_hex_integer_literal,
       anon_sym_DQUOTE_DQUOTE_DQUOTE, anon_sym_SQUOTE_SQUOTE_SQUOTE,
       anon_sym_r_DQUOTE_DQUOTE_DQUOTE, anon_sym_r_SQUOTE_SQUOTE_SQUOTE, anon_sym_LBRACE,
       anon_sym_RBRACE, anon_sym_LBRACK, anon_sym_LPAREN, anon_sym_LT, sym_increment_operator,
       anon_sym_BANG, anon_sym_TILDE, anon_sym_AT]), (ACTIONS 1504, 40,
       [sym_decimal_integer_literal, sym_decimal_floating_point_literal, anon_sym_true,
       anon_sym_false, anon_sym_DQUOTE, anon_sym_SQUOTE, anon_sym_r_DQUOTE, anon_sym_r_SQUOTE,
       anon_sym_null, anon_sym_throw, sym_minus_operator, anon_sym_await, anon_sym_switch,
       anon_sym_default, anon_sym_do, anon_sym_while, anon_sym_continue, anon_sym_yield,
       anon_sym_return, anon_sym_try, anon_sym_if, anon_sym_case, anon_sym_else, anon_sym_for,
       anon_sym_final, sym_void_type, anon_sym_var, sym_break_builtin, sym_assert_builtin,
       sym_rethrow_builtin, anon_sym_covariant, anon_sym_Function, anon_sym_get, anon_sym_set,
       anon_sym_new, sym_const_builtin, anon_sym_late, anon_sym_this, anon_sym_super,
       sym_identifier])]),
     (3063, 8, [(ACTIONS 3, 1, [anon_sym_SLASH_SLASH]), (ACTIONS 5, 1, [anon_sym_SLASH_STAR]),
       (ACTIONS 7, 1, [anon_sym_SLASH_SLASH_SLASH]), (ACTIONS 9, 1, [sym__block_comment]),
       (ACTIONS 11, 1, [sym__documentation_block_comment]), (STATE 519, 2, [sym_comment,
       sym_documentation_comment]), (ACTIONS 1510, 15, [anon_sym_POUND, sym_hex_integer_literal,
       anon_sym_DQUOTE_DQUOTE_DQUOTE, anon_sym_SQUOTE_SQUOTE_SQUOTE,
       anon_sym_r_DQUOTE_DQUOTE_DQUOTE, anon_sym_r_SQUOTE_SQUOTE_SQUOTE, anon_sym_LBRACE,
       anon_sym_RBRACE, anon_sym_LBRACK, anon_sym_LPAREN, anon_sym_LT, sym_increment_operator,
       anon_sym_BANG, anon_sym_TILDE, anon_sym_AT]), (ACTIONS 1508, 40,
       [sym_decimal_integer_literal, sym_decimal_floating_point_literal, anon_sym_true,
       anon_sym_false, anon_sym_DQUOTE, anon_sym_SQUOTE, anon_sym_r_DQUOTE, anon_sym_r_SQUOTE,
       anon_sym_null, anon_sym_throw, sym_minus_operator, anon_sym_await, anon_sym_switch,
       anon_sym_default, anon_sym_do, anon_sym_while, anon_sym_continue, anon_sym_yield,
       anon_sym_return, anon_sym_try, anon_sym_if, anon_sym_case, anon_sym_else, anon_sym_for,
       anon_sym_final, sym_void_type, anon_sym_var, sym_break_builtin, sym_assert_builtin,
       sym_rethrow_builtin, anon_sym_covariant, anon_sym_Function, anon_sym_get, anon_sym_set,
       anon_sym_new, sym_const_builtin, anon_sym_late, anon_sym_this, anon_sym_super,
       sym_identifier])])]"

lemma small_run_24: "small_run 518 2984 ts_small_parse_table_24 520 3142"
  by (simp add: small_simps ts_small_parse_table_24_def)

definition ts_small_parse_table_25 :: "small_group list" where
  "ts_small_parse_table_25 = [
     (3142, 8, [(ACTIONS 3, 1, [anon_sym_SLASH_SLASH]), (ACTIONS 5, 1, [anon_sym_SLASH_STAR]),
       (ACTIONS 7, 1, [anon_sym_SLASH_SLASH_SLASH]), (ACTIONS 9, 1, [sym__block_comment]),
       (ACTIONS 11, 1, [sym__documentation_block_comment]), (STATE 520, 2, [sym_comment,
       sym_documentation_comment]), (ACTIONS 1514, 15, [anon_sym_POUND, sym_hex_integer_literal,
       anon_sym_DQUOTE_DQUOTE_DQUOTE, anon_sym_SQUOTE_SQUOTE_SQUOTE,
       anon_sym_r_DQUOTE_DQUOTE_DQUOTE, anon_sym_r_SQUOTE_SQUOTE_SQUOTE, anon_sym_LBRACE,
       anon_sym_RBRACE, anon_sym_LBRACK, anon_sym_LPAREN, anon_sym_LT, sym_increment_operator,
       anon_sym_BANG, anon_sym_TILDE, anon_sym_AT]), (ACTIONS 1512, 40,
       [sym_decimal_integer_literal, sym_decimal_floating_point_literal, anon_sym_true,
       anon_sym_false, anon_sym_DQUOTE, anon_sym_SQUOTE, anon_sym_r_DQUOTE, anon_sym_r_SQUOTE,
       anon_sym_null, anon_sym_throw, sym_minus_operator, anon_sym_await, anon_sym_switch,
       anon_sym_default, anon_sym_do, anon_sym_while, anon_sym_continue, anon_sym_yield,
       anon_sym_return, anon_sym_try, anon_sym_if, anon_sym_case, anon_sym_else, anon_sym_for,
       anon_sym_final, sym_void_type, anon_sym_var, sym_break_builtin, sym_assert_builtin,
       sym_rethrow_builtin, anon_sym_covariant, anon_sym_Function, anon_sym_get, anon_sym_set,
       anon_sym_new, sym_const_builtin, anon_sym_late, anon_sym_this, anon_sym_super,
       sym_identifier])]),
     (3221, 14, [(ACTIONS 3, 1, [anon_sym_SLASH_SLASH]), (ACTIONS 5, 1, [anon_sym_SLASH_STAR]),
       (ACTIONS 7, 1, [anon_sym_SLASH_SLASH_SLASH]), (ACTIONS 9, 1, [sym__block_comment]),
       (ACTIONS 11, 1, [sym__documentation_block_comment]), (ACTIONS 1328, 1, [anon_sym_EQ]),
       (ACTIONS 1334, 1, [anon_sym_LT]), (ACTIONS 1341, 1, [anon_sym_DOT]), (ACTIONS 1516, 1,
       [anon_sym_LPAREN]), (STATE 1612, 1, [sym__type_dot_identifier]), (STATE 521, 2,
       [sym_comment, sym_documentation_comment]), (ACTIONS 1330, 14, [anon_sym_PLUS_EQ,
       anon_sym_DASH_EQ, anon_sym_STAR_EQ, anon_sym_SLASH_EQ, anon_sym_PERCENT_EQ,
       anon_sym_TILDE_SLASH_EQ, anon_sym_LT_LT_EQ, anon_sym_GT_GT_EQ, anon_sym_GT_GT_GT_EQ,
       anon_sym_AMP_EQ, anon_sym_CARET_EQ, anon_sym_PIPE_EQ, anon_sym_QMARK_QMARK_EQ,
       sym_increment_operator]), (ACTIONS 1332, 16, [anon_sym_QMARK_QMARK, anon_sym_QMARK,
       anon_sym_GT, anon_sym_PIPE, anon_sym_CARET, anon_sym_AMP, anon_sym_LT_LT, anon_sym_GT_GT,
       anon_sym_GT_GT_GT, sym__additive_operator, anon_sym_STAR, anon_sym_SLASH,
       anon_sym_PERCENT, anon_sym_TILDE_SLASH, anon_sym_BANG, anon_sym_QMARK_DOT]), (ACTIONS
       1322, 20, [anon_sym_RBRACE, anon_sym_LBRACK, anon_sym_COMMA, anon_sym_RBRACK,
       anon_sym_COLON, anon_sym_RPAREN, sym_equality_operator, anon_sym_LT_EQ, anon_sym_GT_EQ,
       anon_sym_is, anon_sym_as, anon_sym_DOT_DOT, anon_sym_QMARK_DOT_DOT, anon_sym_SEMI,
       anon_sym_EQ_GT, anon_sym_when, anon_sym_case, anon_sym_else, anon_sym_AMP_AMP,
       anon_sym_PIPE_PIPE])])]"

lemma small_run_25: "small_run 520 3142 ts_small_parse_table_25 522 3312"
  by (simp add: small_simps ts_small_parse_table_25_def)

definition ts_small_parse_table_26 :: "small_group list" where
  "ts_small_parse_table_26 = [
     (3312, 8, [(ACTIONS 3, 1, [anon_sym_SLASH_SLASH]), (ACTIONS 5, 1, [anon_sym_SLASH_STAR]),
       (ACTIONS 7, 1, [anon_sym_SLASH_SLASH_SLASH]), (ACTIONS 9, 1, [sym__block_comment]),
       (ACTIONS 11, 1, [sym__documentation_block_comment]), (STATE 522, 2, [sym_comment,
       sym_documentation_comment]), (ACTIONS 1521, 15, [anon_sym_POUND, sym_hex_integer_literal,
       anon_sym_DQUOTE_DQUOTE_DQUOTE, anon_sym_SQUOTE_SQUOTE_SQUOTE,
       anon_sym_r_DQUOTE_DQUOTE_DQUOTE, anon_sym_r_SQUOTE_SQUOTE_SQUOTE, anon_sym_LBRACE,
       anon_sym_RBRACE, anon_sym_LBRACK, anon_sym_LPAREN, anon_sym_LT, sym_increment_operator,
       anon_sym_BANG, anon_sym_TILDE, anon_sym_AT]), (ACTIONS 1519, 40,
       [sym_decimal_integer_literal, sym_decimal_floating_point_literal, anon_sym_true,
       anon_sym_false, anon_sym_DQUOTE, anon_sym_SQUOTE, anon_sym_r_DQUOTE, anon_sym_r_SQUOTE,
       anon_sym_null, anon_sym_throw, sym_minus_operator, anon_sym_await, anon_sym_switch,
       anon_sym_default, anon_sym_do, anon_sym_while, anon_sym_continue, anon_sym_yield,
       anon_sym_return, anon_sym_try, anon_sym_if, anon_sym_case, anon_sym_else, anon_sym_for,
       anon_sym_final, sym_void_type, anon_sym_var, sym_break_builtin, sym_assert_builtin,
       sym_rethrow_builtin, anon_sym_covariant, anon_sym_Function, anon_sym_get, anon_sym_set,
       anon_sym_new, sym_const_builtin, anon_sym_late, anon_sym_this, anon_sym_super,
       sym_identifier])]),
     (3391, 8, [(ACTIONS 3, 1, [anon_sym_SLASH_SLASH]), (ACTIONS 5, 1, [anon_sym_SLASH_STAR]),
       (ACTIONS 7, 1, [anon_sym_SLASH_SLASH_SLASH]), (ACTIONS 9, 1, [sym__block_comment]),
       (ACTIONS 11, 1, [sym__documentation_block_comment]), (STATE 523, 2, [sym_comment,
       sym_documentation_comment]), (ACTIONS 1525, 15, [anon_sym_POUND, sym_hex_integer_literal,
       anon_sym_DQUOTE_DQUOTE_DQUOTE, anon_sym_SQUOTE_SQUOTE_SQUOTE,
       anon_sym_r_DQUOTE_DQUOTE_DQUOTE, anon_sym_r_SQUOTE_SQUOTE_SQUOTE, anon_sym_LBRACE,
       anon_sym_RBRACE, anon_sym_LBRACK, anon_sym_LPAREN, anon_sym_LT, sym_increment_operator,
       anon_sym_BANG, anon_sym_TILDE, anon_sym_AT]), (ACTIONS 1523, 40,
       [sym_decimal_integer_literal, sym_decimal_floating_point_literal, anon_sym_true,
       anon_sym_false, anon_sym_DQUOTE, anon_sym_SQUOTE, anon_sym_r_DQUOTE, anon_sym_r_SQUOTE,
       anon_sym_null, anon_sym_throw, sym_minus_operator, anon_sym_await, anon_sym_switch,
       anon_sym_default, anon_sym_do, anon_sym_while, anon_sym_continue, anon_sym_yield,
       anon_sym_return, anon_sym_try, anon_sym_if, anon_sym_case, anon_sym_else, anon_sym_for,
       anon_sym_final, sym_void_type, anon_sym_var, sym_break_builtin, sym_assert_builtin,
       sym_rethrow_builtin, anon_sym_covariant, anon_sym_Function, anon_sym_get, anon_sym_set,
       anon_sym_new, sym_const_builtin, anon_sym_late, anon_sym_this, anon_sym_super,
       sym_identifier])])]"

lemma small_run_26: "small_run 522 3312 ts_small_parse_table_26 524 3470"
  by (simp add: small_simps ts_small_parse_table_26_def)

definition ts_small_parse_table_27 :: "small_group list" where
  "ts_small_parse_table_27 = [
     (3470, 8, [(ACTIONS 3, 1, [anon_sym_SLASH_SLASH]), (ACTIONS 5, 1, [anon_sym_SLASH_STAR]),
       (ACTIONS 7, 1, [anon_sym_SLASH_SLASH_SLASH]), (ACTIONS 9, 1, [sym__block_comment]),
       (ACTIONS 11, 1, [sym__documentation_block_comment]), (STATE 524, 2, [sym_comment,
       sym_documentation_comment]), (ACTIONS 1529, 15, [anon_sym_POUND, sym_hex_integer_literal,
       anon_sym_DQUOTE_DQUOTE_DQUOTE, anon_sym_SQUOTE_SQUOTE_SQUOTE,
       anon_sym_r_DQUOTE_DQUOTE_DQUOTE, anon_sym_r_SQUOTE_SQUOTE_SQUOTE, anon_sym_LBRACE,
       anon_sym_RBRACE, anon_sym_LBRACK, anon_sym_LPAREN, anon_sym_LT, sym_increment_operator,
       anon_sym_BANG, anon_sym_TILDE, anon_sym_AT]), (ACTIONS 1527, 40,
       [sym_decimal_integer_literal, sym_decimal_floating_point_literal, anon_sym_true,
       anon_sym_false, anon_sym_DQUOTE, anon_sym_SQUOTE, anon_sym_r_DQUOTE, anon_sym_r_SQUOTE,
       anon_sym_null, anon_sym_throw, sym_minus_operator, anon_sym_await, anon_sym_switch,
       anon_sym_default, anon_sym_do, anon_sym_while, anon_sym_continue, anon_sym_yield,
       anon_sym_return, anon_sym_try, anon_sym_if, anon_sym_case, anon_sym_else, anon_sym_for,
       anon_sym_final, sym_void_type, anon_sym_var, sym_break_builtin, sym_assert_builtin,
       sym_rethrow_builtin, anon_sym_covariant, anon_sym_Function, anon_sym_get, anon_sym_set,
       anon_sym_new, sym_const_builtin, anon_sym_late, anon_sym_this, anon_sym_super,
       sym_identifier])]),
     (3549, 8, [(ACTIONS 3, 1, [anon_sym_SLASH_SLASH]), (ACTIONS 5, 1, [anon_sym_SLASH_STAR]),
       (ACTIONS 7, 1, [anon_sym_SLASH_SLASH_SLASH]), (ACTIONS 9, 1, [sym__block_comment]),
       (ACTIONS 11, 1, [sym__documentation_block_comment]), (STATE 525, 2, [sym_comment,
       sym_documentation_comment]), (ACTIONS 1533, 15, [anon_sym_POUND, sym_hex_integer_literal,
       anon_sym_DQUOTE_DQUOTE_DQUOTE, anon_sym_SQUOTE_SQUOTE_SQUOTE,
       anon_sym_r_DQUOTE_DQUOTE_DQUOTE, anon_sym_r_SQUOTE_SQUOTE_SQUOTE, anon_sym_LBRACE,
       anon_sym_RBRACE, anon_sym_LBRACK, anon_sym_LPAREN, anon_sym_LT, sym_increment_operator,
       anon_sym_BANG, anon_sym_TILDE, anon_sym_AT]), (ACTIONS 1531, 40,
       [sym_decimal_integer_literal, sym_decimal_floating_point_literal, anon_sym_true,
       anon_sym_false, anon_sym_DQUOTE, anon_sym_SQUOTE, anon_sym_r_DQUOTE, anon_sym_r_SQUOTE,
       anon_sym_null, anon_sym_throw, sym_minus_operator, anon_sym_await, anon_sym_switch,
       anon_sym_default, anon_sym_do, anon_sym_while, anon_sym_continue, anon_sym_yield,
       anon_sym_return, anon_sym_try, anon_sym_if, anon_sym_case, anon_sym_else, anon_sym_for,
       anon_sym_final, sym_void_type, anon_sym_var, sym_break_builtin, sym_assert_builtin,
       sym_rethrow_builtin, anon_sym_covariant, anon_sym_Function, anon_sym_get, anon_sym_set,
       anon_sym_new, sym_const_builtin, anon_sym_late, anon_sym_this, anon_sym_super,
       sym_identifier])])]"

lemma small_run_27: "small_run 524 3470 ts_small_parse_table_27 526 3628"
  by (simp add: small_simps ts_small_parse_table_27_def)

definition ts_small_parse_table_28 :: "small_group list" where
  "ts_small_parse_table_28 = [
     (3628, 8, [(ACTIONS 3, 1, [anon_sym_SLASH_SLASH]), (ACTIONS 5, 1, [anon_sym_SLASH_STAR]),
       (ACTIONS 7, 1, [anon_sym_SLASH_SLASH_SLASH]), (ACTIONS 9, 1, [sym__block_comment]),
       (ACTIONS 11, 1, [sym__documentation_block_comment]), (STATE 526, 2, [sym_comment,
       sym_documentation_comment]), (ACTIONS 1537, 15, [anon_sym_POUND, sym_hex_integer_literal,
       anon_sym_DQUOTE_DQUOTE_DQUOTE, anon_sym_SQUOTE_SQUOTE_SQUOTE,
       anon_sym_r_DQUOTE_DQUOTE_DQUOTE, anon_sym_r_SQUOTE_SQUOTE_SQUOTE, anon_sym_LBRACE,
       anon_sym_RBRACE, anon_sym_LBRACK, anon_sym_LPAREN, anon_sym_LT, sym_increment_operator,
       anon_sym_BANG, anon_sym_TILDE, anon_sym_AT]), (ACTIONS 1535, 40,
       [sym_decimal_integer_literal, sym_decimal_floating_point_literal, anon_sym_true,
       anon_sym_false, anon_sym_DQUOTE, anon_sym_SQUOTE, anon_sym_r_DQUOTE, anon_sym_r_SQUOTE,
       anon_sym_null, anon_sym_throw, sym_minus_operator, anon_sym_await, anon_sym_switch,
       anon_sym_default, anon_sym_do, anon_sym_while, anon_sym_continue, anon_sym_yield,
       anon_sym_return, anon_sym_try, anon_sym_if, anon_sym_case, anon_sym_else, anon_sym_for,
       anon_sym_final, sym_void_type, anon_sym_var, sym_break_builtin, sym_assert_builtin,
       sym_rethrow_builtin, anon_sym_covariant, anon_sym_Function, anon_sym_get, anon_sym_set,
       anon_sym_new, sym_const_builtin, anon_sym_late, anon_sym_this, anon_sym_super,
       sym_identifier])]),
     (3707, 8, [(ACTIONS 3, 1, [anon_sym_SLASH_SLASH]), (ACTIONS 5, 1, [anon_sym_SLASH_STAR]),
       (ACTIONS 7, 1, [anon_sym_SLASH_SLASH_SLASH]), (ACTIONS 9, 1, [sym__block_comment]),
       (ACTIONS 11, 1, [sym__documentation_block_comment]), (STATE 527, 2, [sym_comment,
       sym_documentation_comment]), (ACTIONS 1541, 15, [anon_sym_POUND, sym_hex_integer_literal,
       anon_sym_DQUOTE_DQUOTE_DQUOTE, anon_sym_SQUOTE_SQUOTE_SQUOTE,
       anon_sym_r_DQUOTE_DQUOTE_DQUOTE, anon_sym_r_SQUOTE_SQUOTE_SQUOTE, anon_sym_LBRACE,
       anon_sym_RBRACE, anon_sym_LBRACK, anon_sym_LPAREN, anon_sym_LT, sym_increment_operator,
       anon_sym_BANG, anon_sym_TILDE, anon_sym_AT]), (ACTIONS 1539, 40,
       [sym_decimal_integer_literal, sym_decimal_floating_point_literal, anon_sym_true,
       anon_sym_false, anon_sym_DQUOTE, anon_sym_SQUOTE, anon_sym_r_DQUOTE, anon_sym_r_SQUOTE,
       anon_sym_null, anon_sym_throw, sym_minus_operator, anon_sym_await, anon_sym_switch,
       anon_sym_default, anon_sym_do, anon_sym_while, anon_sym_continue, anon_sym_yield,
       anon_sym_return, anon_sym_try, anon_sym_if, anon_sym_case, anon_sym_else, anon_sym_for,
       anon_sym_final, sym_void_type, anon_sym_var, sym_break_builtin, sym_assert_builtin,
       sym_rethrow_builtin, anon_sym_covariant, anon_sym_Function, anon_sym_get, anon_sym_set,
       anon_sym_new, sym_const_builtin, anon_sym_late, anon_sym_this, anon_sym_super,
       sym_identifier])])]"

lemma small_run_28: "small_run 526 3628 ts_small_parse_table_28 528 3786"
  by (simp add: small_simps ts_small_parse_table_28_def)

definition ts_small_parse_table_29 :: "small_group list" where
  "ts_small_parse_table_29 = [
     (3786, 8, [(ACTIONS 3, 1, [anon_sym_SLASH_SLASH]), (ACTIONS 5, 1, [anon_sym_SLASH_STAR]),
       (ACTIONS 7, 1, [anon_sym_SLASH_SLASH_SLASH]), (ACTIONS 9, 1, [sym__block_comment]),
       (ACTIONS 11, 1, [sym__documentation_block_comment]), (STATE 528, 2, [sym_comment,
       sym_documentation_comment]), (ACTIONS 1545, 15, [anon_sym_POUND, sym_hex_integer_literal,
       anon_sym_DQUOTE_DQUOTE_DQUOTE, anon_sym_SQUOTE_SQUOTE_SQUOTE,
       anon_sym_r_DQUOTE_DQUOTE_DQUOTE, anon_sym_r_SQUOTE_SQUOTE_SQUOTE, anon_sym_LBRACE,
       anon_sym_RBRACE, anon_sym_LBRACK, anon_sym_LPAREN, anon_sym_LT, sym_increment_operator,
       anon_sym_BANG, anon_sym_TILDE, anon_sym_AT]), (ACTIONS 1543, 40,
       [sym_decimal_integer_literal, sym_decimal_floating_point_literal, anon_sym_true,
       anon_sym_false, anon_sym_DQUOTE, anon_sym_SQUOTE, anon_sym_r_DQUOTE, anon_sym_r_SQUOTE,
       anon_sym_null, anon_sym_throw, sym_minus_operator, anon_sym_await, anon_sym_switch,
       anon_sym_default, anon_sym_do, anon_sym_while, anon_sym_continue, anon_sym_yield,
       anon_sym_return, anon_sym_try, anon_sym_if, anon_sym_case, anon_sym_else, anon_sym_for,
       anon_sym_final, sym_void_type, anon_sym_var, sym_break_builtin, sym_assert_builtin,
       sym_rethrow_builtin, anon_sym_covariant, anon_sym_Function, anon_sym_get, anon_sym_set,
       anon_sym_new, sym_const_builtin, anon_sym_late, anon_sym_this, anon_sym_super,
       sym_identifier])]),
     (3865, 8, [(ACTIONS 3, 1, [anon_sym_SLASH_SLASH]), (ACTIONS 5, 1, [anon_sym_SLASH_STAR]),
       (ACTIONS 7, 1, [anon_sym_SLASH_SLASH_SLASH]), (ACTIONS 9, 1, [sym__block_comment]),
       (ACTIONS 11, 1, [sym__documentation_block_comment]), (STATE 529, 2, [sym_comment,
       sym_documentation_comment]), (ACTIONS 1549, 15, [anon_sym_POUND, sym_hex_integer_literal,
       anon_sym_DQUOTE_DQUOTE_DQUOTE, anon_sym_SQUOTE_SQUOTE_SQUOTE,
       anon_sym_r_DQUOTE_DQUOTE_DQUOTE, anon_sym_r_SQUOTE_SQUOTE_SQUOTE, anon_sym_LBRACE,
       anon_sym_RBRACE, anon_sym_LBRACK, anon_sym_LPAREN, anon_sym_LT, sym_increment_operator,
       anon_sym_BANG, anon_sym_TILDE, anon_sym_AT]), (ACTIONS 1547, 40,
       [sym_decimal_integer_literal, sym_decimal_floating_point_literal, anon_sym_true,
       anon_sym_false, anon_sym_DQUOTE, anon_sym_SQUOTE, anon_sym_r_DQUOTE, anon_sym_r_SQUOTE,
       anon_sym_null, anon_sym_throw, sym_minus_operator, anon_sym_await, anon_sym_switch,
       anon_sym_default, anon_sym_do, anon_sym_while, anon_sym_continue, anon_sym_yield,
       anon_sym_return, anon_sym_try, anon_sym_if, anon_sym_case, anon_sym_else, anon_sym_for,
       anon_sym_final, sym_void_type, anon_sym_var, sym_break_builtin, sym_assert_builtin,
       sym_rethrow_builtin, anon_sym_covariant, anon_sym_Function, anon_sym_get, anon_sym_set,
       anon_sym_new, sym_const_builtin, anon_sym_late, anon_sym_this, anon_sym_super,
       sym_identifier])])]"

lemma small_run_29: "small_run 528 3786 ts_small_parse_table_29 530 3944"
  by (simp add: small_simps ts_small_parse_table_29_def)

definition ts_small_parse_table_30 :: "small_group list" where
  "ts_small_parse_table_30 = [
     (3944, 8, [(ACTIONS 3, 1, [anon_sym_SLASH_SLASH]), (ACTIONS 5, 1, [anon_sym_SLASH_STAR]),
       (ACTIONS 7, 1, [anon_sym_SLASH_SLASH_SLASH]), (ACTIONS 9, 1, [sym__block_comment]),
       (ACTIONS 11, 1, [sym__documentation_block_comment]), (STATE 530, 2, [sym_comment,
       sym_documentation_comment]), (ACTIONS 1553, 15, [anon_sym_POUND, sym_hex_integer_literal,
       anon_sym_DQUOTE_DQUOTE_DQUOTE, anon_sym_SQUOTE_SQUOTE_SQUOTE,
       anon_sym_r_DQUOTE_DQUOTE_DQUOTE, anon_sym_r_SQUOTE_SQUOTE_SQUOTE, anon_sym_LBRACE,
       anon_sym_RBRACE, anon_sym_LBRACK, anon_sym_LPAREN, anon_sym_LT, sym_increment_operator,
       anon_sym_BANG, anon_sym_TILDE, anon_sym_AT]), (ACTIONS 1551, 40,
       [sym_decimal_integer_literal, sym_decimal_floating_point_literal, anon_sym_true,
       anon_sym_false, anon_sym_DQUOTE, anon_sym_SQUOTE, anon_sym_r_DQUOTE, anon_sym_r_SQUOTE,
       anon_sym_null, anon_sym_throw, sym_minus_operator, anon_sym_await, anon_sym_switch,
       anon_sym_default, anon_sym_do, anon_sym_while, anon_sym_continue, anon_sym_yield,
       anon_sym_return, anon_sym_try, anon_sym_if, anon_sym_case, anon_sym_else, anon_sym_for,
       anon_sym_final, sym_void_type, anon_sym_var, sym_break_builtin, sym_assert_builtin,
       sym_rethrow_builtin, anon_sym_covariant, anon_sym_Function, anon_sym_get, anon_sym_set,
       anon_sym_new, sym_const_builtin, anon_sym_late, anon_sym_this, anon_sym_super,
       sym_identifier])]),
     (4023, 9, [(ACTIONS 3, 1, [anon_sym_SLASH_SLASH]), (ACTIONS 5, 1, [anon_sym_SLASH_STAR]),
       (ACTIONS 7, 1, [anon_sym_SLASH_SLASH_SLASH]), (ACTIONS 9, 1, [sym__block_comment]),
       (ACTIONS 11, 1, [sym__documentation_block_comment]), (ACTIONS 1559, 1, [anon_sym_else]),
       (STATE 531, 2, [sym_comment, sym_documentation_comment]), (ACTIONS 1557, 15,
       [anon_sym_POUND, sym_hex_integer_literal, anon_sym_DQUOTE_DQUOTE_DQUOTE,
       anon_sym_SQUOTE_SQUOTE_SQUOTE, anon_sym_r_DQUOTE_DQUOTE_DQUOTE,
       anon_sym_r_SQUOTE_SQUOTE_SQUOTE, anon_sym_LBRACE, anon_sym_RBRACE, anon_sym_LBRACK,
       anon_sym_LPAREN, anon_sym_LT, sym_increment_operator, anon_sym_BANG, anon_sym_TILDE,
       anon_sym_AT]), (ACTIONS 1555, 39, [sym_decimal_integer_literal,
       sym_decimal_floating_point_literal, anon_sym_true, anon_sym_false, anon_sym_DQUOTE,
       anon_sym_SQUOTE, anon_sym_r_DQUOTE, anon_sym_r_SQUOTE, anon_sym_null, anon_sym_throw,
       sym_minus_operator, anon_sym_await, anon_sym_switch, anon_sym_default, anon_sym_do,
       anon_sym_while, anon_sym_continue, anon_sym_yield, anon_sym_return, anon_sym_try,
       anon_sym_if, anon_sym_case, anon_sym_for, anon_sym_final, sym_void_type, anon_sym_var,
       sym_break_builtin, sym_assert_builtin, sym_rethrow_builtin, anon_sym_covariant,
       anon_sym_Function, anon_sym_get, anon_sym_set, anon_sym_new, sym_const_builtin,
       anon_sym_late, anon_sym_this, anon_sym_super, sym_identifier])])]"

lemma small_run_30: "small_run 530 3944 ts_small_parse_table_30 532 4104"
  by (simp add: small_simps ts_small_parse_table_30_def)

definition ts_small_parse_table_31 :: "small_group list" where
  "ts_small_parse_table_31 = [
     (4104, 13, [(ACTIONS 3, 1, [anon_sym_SLASH_SLASH]), (ACTIONS 5, 1, [anon_sym_SLASH_STAR]),
       (ACTIONS 7, 1, [anon_sym_SLASH_SLASH_SLASH]), (ACTIONS 9, 1, [sym__block_comment]),
       (ACTIONS 11, 1, [sym__documentation_block_comment]), (ACTIONS 1328, 1, [anon_sym_EQ]),
       (ACTIONS 1334, 1, [anon_sym_LT]), (ACTIONS 1341, 1, [anon_sym_DOT]), (STATE 1612, 1,
       [sym__type_dot_identifier]), (STATE 532, 2, [sym_comment, sym_documentation_comment]),
       (ACTIONS 1330, 14, [anon_sym_PLUS_EQ, anon_sym_DASH_EQ, anon_sym_STAR_EQ,
       anon_sym_SLASH_EQ, anon_sym_PERCENT_EQ, anon_sym_TILDE_SLASH_EQ, anon_sym_LT_LT_EQ,
       anon_sym_GT_GT_EQ, anon_sym_GT_GT_GT_EQ, anon_sym_AMP_EQ, anon_sym_CARET_EQ,
       anon_sym_PIPE_EQ, anon_sym_QMARK_QMARK_EQ, sym_increment_operator]), (ACTIONS 1332, 16,
       [anon_sym_QMARK_QMARK, anon_sym_QMARK, anon_sym_GT, anon_sym_PIPE, anon_sym_CARET,
       anon_sym_AMP, anon_sym_LT_LT, anon_sym_GT_GT, anon_sym_GT_GT_GT, sym__additive_operator,
       anon_sym_STAR, anon_sym_SLASH, anon_sym_PERCENT, anon_sym_TILDE_SLASH, anon_sym_BANG,
       anon_sym_QMARK_DOT]), (ACTIONS 1322, 21, [anon_sym_RBRACE, anon_sym_LBRACK,
       anon_sym_COMMA, anon_sym_RBRACK, anon_sym_COLON, anon_sym_LPAREN, anon_sym_RPAREN,
       sym_equality_operator, anon_sym_LT_EQ, anon_sym_GT_EQ, anon_sym_is, anon_sym_as,
       anon_sym_DOT_DOT, anon_sym_QMARK_DOT_DOT, anon_sym_SEMI, anon_sym_EQ_GT, anon_sym_when,
       anon_sym_case, anon_sym_else, anon_sym_AMP_AMP, anon_sym_PIPE_PIPE])]),
     (4193, 8, [(ACTIONS 3, 1, [anon_sym_SLASH_SLASH]), (ACTIONS 5, 1, [anon_sym_SLASH_STAR]),
       (ACTIONS 7, 1, [anon_sym_SLASH_SLASH_SLASH]), (ACTIONS 9, 1, [sym__block_comment]),
       (ACTIONS 11, 1, [sym__documentation_block_comment]), (STATE 533, 2, [sym_comment,
       sym_documentation_comment]), (ACTIONS 1563, 15, [anon_sym_POUND, sym_hex_integer_literal,
       anon_sym_DQUOTE_DQUOTE_DQUOTE, anon_sym_SQUOTE_SQUOTE_SQUOTE,
       anon_sym_r_DQUOTE_DQUOTE_DQUOTE, anon_sym_r_SQUOTE_SQUOTE_SQUOTE, anon_sym_LBRACE,
       anon_sym_RBRACE, anon_sym_LBRACK, anon_sym_LPAREN, anon_sym_LT, sym_increment_operator,
       anon_sym_BANG, anon_sym_TILDE, anon_sym_AT]), (ACTIONS 1561, 40,
       [sym_decimal_integer_literal, sym_decimal_floating_point_literal, anon_sym_true,
       anon_sym_false, anon_sym_DQUOTE, anon_sym_SQUOTE, anon_sym_r_DQUOTE, anon_sym_r_SQUOTE,
       anon_sym_null, anon_sym_throw, sym_minus_operator, anon_sym_await, anon_sym_switch,
       anon_sym_default, anon_sym_do, anon_sym_while, anon_sym_continue, anon_sym_yield,
       anon_sym_return, anon_sym_try, anon_sym_if, anon_sym_case, anon_sym_else, anon_sym_for,
       anon_sym_final, sym_void_type, anon_sym_var, sym_break_builtin, sym_assert_builtin,
       sym_rethrow_builtin, anon_sym_covariant, anon_sym_Function, anon_sym_get, anon_sym_set,
       anon_sym_new, sym_const_builtin, anon_sym_late, anon_sym_this, anon_sym_super,
       sym_identifier])])]"

lemma small_run_31: "small_run 532 4104 ts_small_parse_table_31 534 4272"
  by (simp add: small_simps ts_small_parse_table_31_def)

definition ts_small_parse_table_32 :: "small_group list" where
  "ts_small_parse_table_32 = [
     (4272, 8, [(ACTIONS 3, 1, [anon_sym_SLASH_SLASH]), (ACTIONS 5, 1, [anon_sym_SLASH_STAR]),
       (ACTIONS 7, 1, [anon_sym_SLASH_SLASH_SLASH]), (ACTIONS 9, 1, [sym__block_comment]),
       (ACTIONS 11, 1, [sym__documentation_block_comment]), (STATE 534, 2, [sym_comment,
       sym_documentation_comment]), (ACTIONS 1567, 15, [anon_sym_POUND, sym_hex_integer_literal,
       anon_sym_DQUOTE_DQUOTE_DQUOTE, anon_sym_SQUOTE_SQUOTE_SQUOTE,
       anon_sym_r_DQUOTE_DQUOTE_DQUOTE, anon_sym_r_SQUOTE_SQUOTE_SQUOTE, anon_sym_LBRACE,
       anon_sym_RBRACE, anon_sym_LBRACK, anon_sym_LPAREN, anon_sym_LT, sym_increment_operator,
       anon_sym_BANG, anon_sym_TILDE, anon_sym_AT]), (ACTIONS 1565, 40,
       [sym_decimal_integer_literal, sym_decimal_floating_point_literal, anon_sym_true,
       anon_sym_false, anon_sym_DQUOTE, anon_sym_SQUOTE, anon_sym_r_DQUOTE, anon_sym_r_SQUOTE,
       anon_sym_null, anon_sym_throw, sym_minus_operator, anon_sym_await, anon_sym_switch,
       anon_sym_default, anon_sym_do, anon_sym_while, anon_sym_continue, anon_sym_yield,
       anon_sym_return, anon_sym_try, anon_sym_if, anon_sym_case, anon_sym_else, anon_sym_for,
       anon_sym_final, sym_void_type, anon_sym_var, sym_break_builtin, sym_assert_builtin,
       sym_rethrow_builtin, anon_sym_covariant, anon_sym_Function, anon_sym_get, anon_sym_set,
       anon_sym_new, sym_const_builtin, anon_sym_late, anon_sym_this, anon_sym_super,
       sym_identifier])]),
     (4351, 8, [(ACTIONS 3, 1, [anon_sym_SLASH_SLASH]), (ACTIONS 5, 1, [anon_sym_SLASH_STAR]),
       (ACTIONS 7, 1, [anon_sym_SLASH_SLASH_SLASH]), (ACTIONS 9, 1, [sym__block_comment]),
       (ACTIONS 11, 1, [sym__documentation_block_comment]), (STATE 535, 2, [sym_comment,
       sym_documentation_comment]), (ACTIONS 1571, 15, [anon_sym_POUND, sym_hex_integer_literal,
       anon_sym_DQUOTE_DQUOTE_DQUOTE, anon_sym_SQUOTE_SQUOTE_SQUOTE,
       anon_sym_r_DQUOTE_DQUOTE_DQUOTE, anon_sym_r_SQUOTE_SQUOTE_SQUOTE, anon_sym_LBRACE,
       anon_sym_RBRACE, anon_sym_LBRACK, anon_sym_LPAREN, anon_sym_LT, sym_increment_operator,
       anon_sym_BANG, anon_sym_TILDE, anon_sym_AT]), (ACTIONS 1569, 40,
       [sym_decimal_integer_literal, sym_decimal_floating_point_literal, anon_sym_true,
       anon_sym_false, anon_sym_DQUOTE, anon_sym_SQUOTE, anon_sym_r_DQUOTE, anon_sym_r_SQUOTE,
       anon_sym_null, anon_sym_throw, sym_minus_operator, anon_sym_await, anon_sym_switch,
       anon_sym_default, anon_sym_do, anon_sym_while, anon_sym_continue, anon_sym_yield,
       anon_sym_return, anon_sym_try, anon_sym_if, anon_sym_case, anon_sym_else, anon_sym_for,
       anon_sym_final, sym_void_type, anon_sym_var, sym_break_builtin, sym_assert_builtin,
       sym_rethrow_builtin, anon_sym_covariant, anon_sym_Function, anon_sym_get, anon_sym_set,
       anon_sym_new, sym_const_builtin, anon_sym_late, anon_sym_this, anon_sym_super,
       sym_identifier])])]"

lemma small_run_32: "small_run 534 4272 ts_small_parse_table_32 536 4430"
  by (simp add: small_simps ts_small_parse_table_32_def)

definition ts_small_parse_table_33 :: "small_group list" where
  "ts_small_parse_table_33 = [
     (4430, 8, [(ACTIONS 3, 1, [anon_sym_SLASH_SLASH]), (ACTIONS 5, 1, [anon_sym_SLASH_STAR]),
       (ACTIONS 7, 1, [anon_sym_SLASH_SLASH_SLASH]), (ACTIONS 9, 1, [sym__block_comment]),
       (ACTIONS 11, 1, [sym__documentation_block_comment]), (STATE 536, 2, [sym_comment,
       sym_documentation_comment]), (ACTIONS 1575, 15, [anon_sym_POUND, sym_hex_integer_literal,
       anon_sym_DQUOTE_DQUOTE_DQUOTE, anon_sym_SQUOTE_SQUOTE_SQUOTE,
       anon_sym_r_DQUOTE_DQUOTE_DQUOTE, anon_sym_r_SQUOTE_SQUOTE_SQUOTE, anon_sym_LBRACE,
       anon_sym_RBRACE, anon_sym_LBRACK, anon_sym_LPAREN, anon_sym_LT, sym_increment_operator,
       anon_sym_BANG, anon_sym_TILDE, anon_sym_AT]), (ACTIONS 1573, 40,
       [sym_decimal_integer_literal, sym_decimal_floating_point_literal, anon_sym_true,
       anon_sym_false, anon_sym_DQUOTE, anon_sym_SQUOTE, anon_sym_r_DQUOTE, anon_sym_r_SQUOTE,
       anon_sym_null, anon_sym_throw, sym_minus_operator, anon_sym_await, anon_sym_switch,
       anon_sym_default, anon_sym_do, anon_sym_while, anon_sym_continue, anon_sym_yield,
       anon_sym_return, anon_sym_try, anon_sym_if, anon_sym_case, anon_sym_else, anon_sym_for,
       anon_sym_final, sym_void_type, anon_sym_var, sym_break_builtin, sym_assert_builtin,
       sym_rethrow_builtin, anon_sym_covariant, anon_sym_Function, anon_sym_get, anon_sym_set,
       anon_sym_new, sym_const_builtin, anon_sym_late, anon_sym_this, anon_sym_super,
       sym_identifier])]),
     (4509, 8, [(ACTIONS 3, 1, [anon_sym_SLASH_SLASH]), (ACTIONS 5, 1, [anon_sym_SLASH_STAR]),
       (ACTIONS 7, 1, [anon_sym_SLASH_SLASH_SLASH]), (ACTIONS 9, 1, [sym__block_comment]),
       (ACTIONS 11, 1, [sym__documentation_block_comment]), (STATE 537, 2, [sym_comment,
       sym_documentation_comment]), (ACTIONS 1579, 15, [anon_sym_POUND, sym_hex_integer_literal,
       anon_sym_DQUOTE_DQUOTE_DQUOTE, anon_sym_SQUOTE_SQUOTE_SQUOTE,
       anon_sym_r_DQUOTE_DQUOTE_DQUOTE, anon_sym_r_SQUOTE_SQUOTE_SQUOTE, anon_sym_LBRACE,
       anon_sym_RBRACE, anon_sym_LBRACK, anon_sym_LPAREN, anon_sym_LT, sym_increment_operator,
       anon_sym_BANG, anon_sym_TILDE, anon_sym_AT]), (ACTIONS 1577, 40,
       [sym_decimal_integer_literal, sym_decimal_floating_point_literal, anon_sym_true,
       anon_sym_false, anon_sym_DQUOTE, anon_sym_SQUOTE, anon_sym_r_DQUOTE, anon_sym_r_SQUOTE,
       anon_sym_null, anon_sym_throw, sym_minus_operator, anon_sym_await, anon_sym_switch,
       anon_sym_default, anon_sym_do, anon_sym_while, anon_sym_continue, anon_sym_yield,
       anon_sym_return, anon_sym_try, anon_sym_if, anon_sym_case, anon_sym_else, anon_sym_for,
       anon_sym_final, sym_void_type, anon_sym_var, sym_break_builtin, sym_assert_builtin,
       sym_rethrow_builtin, anon_sym_covariant, anon_sym_Function, anon_sym_get, anon_sym_set,
       anon_sym_new, sym_const_builtin, anon_sym_late, anon_sym_this, anon_sym_super,
       sym_identifier])])]"

lemma small_run_33: "small_run 536 4430 ts_small_parse_table_33 538 4588"
  by (simp add: small_simps ts_small_parse_table_33_def)

definition ts_small_parse_table_34 :: "small_group list" where
  "ts_small_parse_table_34 = [
     (4588, 8, [(ACTIONS 3, 1, [anon_sym_SLASH_SLASH]), (ACTIONS 5, 1, [anon_sym_SLASH_STAR]),
       (ACTIONS 7, 1, [anon_sym_SLASH_SLASH_SLASH]), (ACTIONS 9, 1, [sym__block_comment]),
       (ACTIONS 11, 1, [sym__documentation_block_comment]), (STATE 538, 2, [sym_comment,
       sym_documentation_comment]), (ACTIONS 1583, 15, [anon_sym_POUND, sym_hex_integer_literal,
       anon_sym_DQUOTE_DQUOTE_DQUOTE, anon_sym_SQUOTE_SQUOTE_SQUOTE,
       anon_sym_r_DQUOTE_DQUOTE_DQUOTE, anon_sym_r_SQUOTE_SQUOTE_SQUOTE, anon_sym_LBRACE,
       anon_sym_RBRACE, anon_sym_LBRACK, anon_sym_LPAREN, anon_sym_LT, sym_increment_operator,
       anon_sym_BANG, anon_sym_TILDE, anon_sym_AT]), (ACTIONS 1581, 40,
       [sym_decimal_integer_literal, sym_decimal_floating_point_literal, anon_sym_true,
       anon_sym_false, anon_sym_DQUOTE, anon_sym_SQUOTE, anon_sym_r_DQUOTE, anon_sym_r_SQUOTE,
       anon_sym_null, anon_sym_throw, sym_minus_operator, anon_sym_await, anon_sym_switch,
       anon_sym_default, anon_sym_do, anon_sym_while, anon_sym_continue, anon_sym_yield,
       anon_sym_return, anon_sym_try, anon_sym_if, anon_sym_case, anon_sym_else, anon_sym_for,
       anon_sym_final, sym_void_type, anon_sym_var, sym_break_builtin, sym_assert_builtin,
       sym_rethrow_builtin, anon_sym_covariant, anon_sym_Function, anon_sym_get, anon_sym_set,
       anon_sym_new, sym_const_builtin, anon_sym_late, anon_sym_this, anon_sym_super,
       sym_identifier])]),
     (4667, 8, [(ACTIONS 3, 1, [anon_sym_SLASH_SLASH]), (ACTIONS 5, 1, [anon_sym_SLASH_STAR]),
       (ACTIONS 7, 1, [anon_sym_SLASH_SLASH_SLASH]), (ACTIONS 9, 1, [sym__block_comment]),
       (ACTIONS 11, 1, [sym__documentation_block_comment]), (STATE 539, 2, [sym_comment,
       sym_documentation_comment]), (ACTIONS 1587, 15, [anon_sym_POUND, sym_hex_integer_literal,
       anon_sym_DQUOTE_DQUOTE_DQUOTE, anon_sym_SQUOTE_SQUOTE_SQUOTE,
       anon_sym_r_DQUOTE_DQUOTE_DQUOTE, anon_sym_r_SQUOTE_SQUOTE_SQUOTE, anon_sym_LBRACE,
       anon_sym_RBRACE, anon_sym_LBRACK, anon_sym_LPAREN, anon_sym_LT, sym_increment_operator,
       anon_sym_BANG, anon_sym_TILDE, anon_sym_AT]), (ACTIONS 1585, 40,
       [sym_decimal_integer_literal, sym_decimal_floating_point_literal, anon_sym_true,
       anon_sym_false, anon_sym_DQUOTE, anon_sym_SQUOTE, anon_sym_r_DQUOTE, anon_sym_r_SQUOTE,
       anon_sym_null, anon_sym_throw, sym_minus_operator, anon_sym_await, anon_sym_switch,
       anon_sym_default, anon_sym_do, anon_sym_while, anon_sym_continue, anon_sym_yield,
       anon_sym_return, anon_sym_try, anon_sym_if, anon_sym_case, anon_sym_else, anon_sym_for,
       anon_sym_final, sym_void_type, anon_sym_var, sym_break_builtin, sym_assert_builtin,
       sym_rethrow_builtin, anon_sym_covariant, anon_sym_Function, anon_sym_get, anon_sym_set,
       anon_sym_new, sym_const_builtin, anon_sym_late, anon_sym_this, anon_sym_super,
       sym_identifier])])]"

lemma small_run_34: "small_run 538 4588 ts_small_parse_table_34 540 4746"
  by (simp add: small_simps ts_small_parse_table_34_def)

definition ts_small_parse_table_35 :: "small_group list" where
  "ts_small_parse_table_35 = [
     (4746, 8, [(ACTIONS 3, 1, [anon_sym_SLASH_SLASH]), (ACTIONS 5, 1, [anon_sym_SLASH_STAR]),
       (ACTIONS 7, 1, [anon_sym_SLASH_SLASH_SLASH]), (ACTIONS 9, 1, [sym__block_comment]),
       (ACTIONS 11, 1, [sym__documentation_block_comment]), (STATE 540, 2, [sym_comment,
       sym_documentation_comment]), (ACTIONS 1591, 15, [anon_sym_POUND, sym_hex_integer_literal,
       anon_sym_DQUOTE_DQUOTE_DQUOTE, anon_sym_SQUOTE_SQUOTE_SQUOTE,
       anon_sym_r_DQUOTE_DQUOTE_DQUOTE, anon_sym_r_SQUOTE_SQUOTE_SQUOTE, anon_sym_LBRACE,
       anon_sym_RBRACE, anon_sym_LBRACK, anon_sym_LPAREN, anon_sym_LT, sym_increment_operator,
       anon_sym_BANG, anon_sym_TILDE, anon_sym_AT]), (ACTIONS 1589, 40,
       [sym_decimal_integer_literal, sym_decimal_floating_point_literal, anon_sym_true,
       anon_sym_false, anon_sym_DQUOTE, anon_sym_SQUOTE, anon_sym_r_DQUOTE, anon_sym_r_SQUOTE,
       anon_sym_null, anon_sym_throw, sym_minus_operator, anon_sym_await, anon_sym_switch,
       anon_sym_default, anon_sym_do, anon_sym_while, anon_sym_continue, anon_sym_yield,
       anon_sym_return, anon_sym_try, anon_sym_if, anon_sym_case, anon_sym_else, anon_sym_for,
       anon_sym_final, sym_void_type, anon_sym_var, sym_break_builtin, sym_assert_builtin,
       sym_rethrow_builtin, anon_sym_covariant, anon_sym_Function, anon_sym_get, anon_sym_set,
       anon_sym_new, sym_const_builtin, anon_sym_late, anon_sym_this, anon_sym_super,
       sym_identifier])]),
     (4825, 8, [(ACTIONS 3, 1, [anon_sym_SLASH_SLASH]), (ACTIONS 5, 1, [anon_sym_SLASH_STAR]),
       (ACTIONS 7, 1, [anon_sym_SLASH_SLASH_SLASH]), (ACTIONS 9, 1, [sym__block_comment]),
       (ACTIONS 11, 1, [sym__documentation_block_comment]), (STATE 541, 2, [sym_comment,
       sym_documentation_comment]), (ACTIONS 1595, 15, [anon_sym_POUND, sym_hex_integer_literal,
       anon_sym_DQUOTE_DQUOTE_DQUOTE, anon_sym_SQUOTE_SQUOTE_SQUOTE,
       anon_sym_r_DQUOTE_DQUOTE_DQUOTE, anon_sym_r_SQUOTE_SQUOTE_SQUOTE, anon_sym_LBRACE,
       anon_sym_RBRACE, anon_sym_LBRACK, anon_sym_LPAREN, anon_sym_LT, sym_increment_operator,
       anon_sym_BANG, anon_sym_TILDE, anon_sym_AT]), (ACTIONS 1593, 40,
       [sym_decimal_integer_literal, sym_decimal_floating_point_literal, anon_sym_true,
       anon_sym_false, anon_sym_DQUOTE, anon_sym_SQUOTE, anon_sym_r_DQUOTE, anon_sym_r_SQUOTE,
       anon_sym_null, anon_sym_throw, sym_minus_operator, anon_sym_await, anon_sym_switch,
       anon_sym_default, anon_sym_do, anon_sym_while, anon_sym_continue, anon_sym_yield,
       anon_sym_return, anon_sym_try, anon_sym_if, anon_sym_case, anon_sym_else, anon_sym_for,
       anon_sym_final, sym_void_type, anon_sym_var, sym_break_builtin, sym_assert_builtin,
       sym_rethrow_builtin, anon_sym_covariant, anon_sym_Function, anon_sym_get, anon_sym_set,
       anon_sym_new, sym_const_builtin, anon_sym_late, anon_sym_this, anon_sym_super,
       sym_identifier])])]"

lemma small_run_35: "small_run 540 4746 ts_small_parse_table_35 542 4904"
  by (simp add: small_simps ts_small_parse_table_35_def)

definition ts_small_parse_table_36 :: "small_group list" where
  "ts_small_parse_table_36 = [
     (4904, 8, [(ACTIONS 3, 1, [anon_sym_SLASH_SLASH]), (ACTIONS 5, 1, [anon_sym_SLASH_STAR]),
       (ACTIONS 7, 1, [anon_sym_SLASH_SLASH_SLASH]), (ACTIONS 9, 1, [sym__block_comment]),
       (ACTIONS 11, 1, [sym__documentation_block_comment]), (STATE 542, 2, [sym_comment,
       sym_documentation_comment]), (ACTIONS 1599, 15, [anon_sym_POUND, sym_hex_integer_literal,
       anon_sym_DQUOTE_DQUOTE_DQUOTE, anon_sym_SQUOTE_SQUOTE_SQUOTE,
       anon_sym_r_DQUOTE_DQUOTE_DQUOTE, anon_sym_r_SQUOTE_SQUOTE_SQUOTE, anon_sym_LBRACE,
       anon_sym_RBRACE, anon_sym_LBRACK, anon_sym_LPAREN, anon_sym_LT, sym_increment_operator,
       anon_sym_BANG, anon_sym_TILDE, anon_sym_AT]), (ACTIONS 1597, 40,
       [sym_decimal_integer_literal, sym_decimal_floating_point_literal, anon_sym_true,
       anon_sym_false, anon_sym_DQUOTE, anon_sym_SQUOTE, anon_sym_r_DQUOTE, anon_sym_r_SQUOTE,
       anon_sym_null, anon_sym_throw, sym_minus_operator, anon_sym_await, anon_sym_switch,
       anon_sym_default, anon_sym_do, anon_sym_while, anon_sym_continue, anon_sym_yield,
       anon_sym_return, anon_sym_try, anon_sym_if, anon_sym_case, anon_sym_else, anon_sym_for,
       anon_sym_final, sym_void_type, anon_sym_var, sym_break_builtin, sym_assert_builtin,
       sym_rethrow_builtin, anon_sym_covariant, anon_sym_Function, anon_sym_get, anon_sym_set,
       anon_sym_new, sym_const_builtin, anon_sym_late, anon_sym_this, anon_sym_super,
       sym_identifier])]),
     (4983, 8, [(ACTIONS 3, 1, [anon_sym_SLASH_SLASH]), (ACTIONS 5, 1, [anon_sym_SLASH_STAR]),
       (ACTIONS 7, 1, [anon_sym_SLASH_SLASH_SLASH]), (ACTIONS 9, 1, [sym__block_comment]),
       (ACTIONS 11, 1, [sym__documentation_block_comment]), (STATE 543, 2, [sym_comment,
       sym_documentation_comment]), (ACTIONS 1603, 15, [anon_sym_POUND, sym_hex_integer_literal,
       anon_sym_DQUOTE_DQUOTE_DQUOTE, anon_sym_SQUOTE_SQUOTE_SQUOTE,
       anon_sym_r_DQUOTE_DQUOTE_DQUOTE, anon_sym_r_SQUOTE_SQUOTE_SQUOTE, anon_sym_LBRACE,
       anon_sym_RBRACE, anon_sym_LBRACK, anon_sym_LPAREN, anon_sym_LT, sym_increment_operator,
       anon_sym_BANG, anon_sym_TILDE, anon_sym_AT]), (ACTIONS 1601, 40,
       [sym_decimal_integer_literal, sym_decimal_floating_point_literal, anon_sym_true,
       anon_sym_false, anon_sym_DQUOTE, anon_sym_SQUOTE, anon_sym_r_DQUOTE, anon_sym_r_SQUOTE,
       anon_sym_null, anon_sym_throw, sym_minus_operator, anon_sym_await, anon_sym_switch,
       anon_sym_default, anon_sym_do, anon_sym_while, anon_sym_continue, anon_sym_yield,
       anon_sym_return, anon_sym_try, anon_sym_if, anon_sym_case, anon_sym_else, anon_sym_for,
       anon_sym_final, sym_void_type, anon_sym_var, sym_break_builtin, sym_assert_builtin,
       sym_rethrow_builtin, anon_sym_covariant, anon_sym_Function, anon_sym_get, anon_sym_set,
       anon_sym_new, sym_const_builtin, anon_sym_late, anon_sym_this, anon_sym_super,
       sym_identifier])])]"

lemma small_run_36: "small_run 542 4904 ts_small_parse_table_36 544 5062"
  by (simp add: small_simps ts_small_parse_table_36_def)

definition ts_small_parse_table_37 :: "small_group list" where
  "ts_small_parse_table_37 = [
     (5062, 8, [(ACTIONS 3, 1, [anon_sym_SLASH_SLASH]), (ACTIONS 5, 1, [anon_sym_SLASH_STAR]),
       (ACTIONS 7, 1, [anon_sym_SLASH_SLASH_SLASH]), (ACTIONS 9, 1, [sym__block_comment]),
       (ACTIONS 11, 1, [sym__documentation_block_comment]), (STATE 544, 2, [sym_comment,
       sym_documentation_comment]), (ACTIONS 1607, 15, [anon_sym_POUND, sym_hex_integer_literal,
       anon_sym_DQUOTE_DQUOTE_DQUOTE, anon_sym_SQUOTE_SQUOTE_SQUOTE,
       anon_sym_r_DQUOTE_DQUOTE_DQUOTE, anon_sym_r_SQUOTE_SQUOTE_SQUOTE, anon_sym_LBRACE,
       anon_sym_RBRACE, anon_sym_LBRACK, anon_sym_LPAREN, anon_sym_LT, sym_increment_operator,
       anon_sym_BANG, anon_sym_TILDE, anon_sym_AT]), (ACTIONS 1605, 40,
       [sym_decimal_integer_literal, sym_decimal_floating_point_literal, anon_sym_true,
       anon_sym_false, anon_sym_DQUOTE, anon_sym_SQUOTE, anon_sym_r_DQUOTE, anon_sym_r_SQUOTE,
       anon_sym_null, anon_sym_throw, sym_minus_operator, anon_sym_await, anon_sym_switch,
       anon_sym_default, anon_sym_do, anon_sym_while, anon_sym_continue, anon_sym_yield,
       anon_sym_return, anon_sym_try, anon_sym_if, anon_sym_case, anon_sym_else, anon_sym_for,
       anon_sym_final, sym_void_type, anon_sym_var, sym_break_builtin, sym_assert_builtin,
       sym_rethrow_builtin, anon_sym_covariant, anon_sym_Function, anon_sym_get, anon_sym_set,
       anon_sym_new, sym_const_builtin, anon_sym_late, anon_sym_this, anon_sym_super,
       sym_identifier])]),
     (5141, 8, [(ACTIONS 3, 1, [anon_sym_SLASH_SLASH]), (ACTIONS 5, 1, [anon_sym_SLASH_STAR]),
       (ACTIONS 7, 1, [anon_sym_SLASH_SLASH_SLASH]), (ACTIONS 9, 1, [sym__block_comment]),
       (ACTIONS 11, 1, [sym__documentation_block_comment]), (STATE 545, 2, [sym_comment,
       sym_documentation_comment]), (ACTIONS 1611, 15, [anon_sym_POUND, sym_hex_integer_literal,
       anon_sym_DQUOTE_DQUOTE_DQUOTE, anon_sym_SQUOTE_SQUOTE_SQUOTE,
       anon_sym_r_DQUOTE_DQUOTE_DQUOTE, anon_sym_r_SQUOTE_SQUOTE_SQUOTE, anon_sym_LBRACE,
       anon_sym_RBRACE, anon_sym_LBRACK, anon_sym_LPAREN, anon_sym_LT, sym_increment_operator,
       anon_sym_BANG, anon_sym_TILDE, anon_sym_AT]), (ACTIONS 1609, 40,
       [sym_decimal_integer_literal, sym_decimal_floating_point_literal, anon_sym_true,
       anon_sym_false, anon_sym_DQUOTE, anon_sym_SQUOTE, anon_sym_r_DQUOTE, anon_sym_r_SQUOTE,
       anon_sym_null, anon_sym_throw, sym_minus_operator, anon_sym_await, anon_sym_switch,
       anon_sym_default, anon_sym_do, anon_sym_while, anon_sym_continue, anon_sym_yield,
       anon_sym_return, anon_sym_try, anon_sym_if, anon_sym_case, anon_sym_else, anon_sym_for,
       anon_sym_final, sym_void_type, anon_sym_var, sym_break_builtin, sym_assert_builtin,
       sym_rethrow_builtin, anon_sym_covariant, anon_sym_Function, anon_sym_get, anon_sym_set,
       anon_sym_new, sym_const_builtin, anon_sym_late, anon_sym_this, anon_sym_super,
       sym_identifier])])]"

lemma small_run_37: "small_run 544 5062 ts_small_parse_table_37 546 5220"
  by (simp add: small_simps ts_small_parse_table_37_def)

definition ts_small_parse_table_38 :: "small_group list" where
  "ts_small_parse_table_38 = [
     (5220, 8, [(ACTIONS 3, 1, [anon_sym_SLASH_SLASH]), (ACTIONS 5, 1, [anon_sym_SLASH_STAR]),
       (ACTIONS 7, 1, [anon_sym_SLASH_SLASH_SLASH]), (ACTIONS 9, 1, [sym__block_comment]),
       (ACTIONS 11, 1, [sym__documentation_block_comment]), (STATE 546, 2, [sym_comment,
       sym_documentation_comment]), (ACTIONS 1615, 15, [anon_sym_POUND, sym_hex_integer_literal,
       anon_sym_DQUOTE_DQUOTE_DQUOTE, anon_sym_SQUOTE_SQUOTE_SQUOTE,
       anon_sym_r_DQUOTE_DQUOTE_DQUOTE, anon_sym_r_SQUOTE_SQUOTE_SQUOTE, anon_sym_LBRACE,
       anon_sym_RBRACE, anon_sym_LBRACK, anon_sym_LPAREN, anon_sym_LT, sym_increment_operator,
       anon_sym_BANG, anon_sym_TILDE, anon_sym_AT]), (ACTIONS 1613, 40,
       [sym_decimal_integer_literal, sym_decimal_floating_point_literal, anon_sym_true,
       anon_sym_false, anon_sym_DQUOTE, anon_sym_SQUOTE, anon_sym_r_DQUOTE, anon_sym_r_SQUOTE,
       anon_sym_null, anon_sym_throw, sym_minus_operator, anon_sym_await, anon_sym_switch,
       anon_sym_default, anon_sym_do, anon_sym_while, anon_sym_continue, anon_sym_yield,
       anon_sym_return, anon_sym_try, anon_sym_if, anon_sym_case, anon_sym_else, anon_sym_for,
       anon_sym_final, sym_void_type, anon_sym_var, sym_break_builtin, sym_assert_builtin,
       sym_rethrow_builtin, anon_sym_covariant, anon_sym_Function, anon_sym_get, anon_sym_set,
       anon_sym_new, sym_const_builtin, anon_sym_late, anon_sym_this, anon_sym_super,
       sym_identifier])]),
     (5299, 9, [(ACTIONS 3, 1, [anon_sym_SLASH_SLASH]), (ACTIONS 5, 1, [anon_sym_SLASH_STAR]),
       (ACTIONS 7, 1, [anon_sym_SLASH_SLASH_SLASH]), (ACTIONS 9, 1, [sym__block_comment]),
       (ACTIONS 11, 1, [sym__documentation_block_comment]), (ACTIONS 1621, 1, [anon_sym_else]),
       (STATE 547, 2, [sym_comment, sym_documentation_comment]), (ACTIONS 1619, 15,
       [anon_sym_POUND, sym_hex_integer_literal, anon_sym_DQUOTE_DQUOTE_DQUOTE,
       anon_sym_SQUOTE_SQUOTE_SQUOTE, anon_sym_r_DQUOTE_DQUOTE_DQUOTE,
       anon_sym_r_SQUOTE_SQUOTE_SQUOTE, anon_sym_LBRACE, anon_sym_RBRACE, anon_sym_LBRACK,
       anon_sym_LPAREN, anon_sym_LT, sym_increment_operator, anon_sym_BANG, anon_sym_TILDE,
       anon_sym_AT]), (ACTIONS 1617, 39, [sym_decimal_integer_literal,
       sym_decimal_floating_point_literal, anon_sym_true, anon_sym_false, anon_sym_DQUOTE,
       anon_sym_SQUOTE, anon_sym_r_DQUOTE, anon_sym_r_SQUOTE, anon_sym_null, anon_sym_throw,
       sym_minus_operator, anon_sym_await, anon_sym_switch, anon_sym_default, anon_sym_do,
       anon_sym_while, anon_sym_continue, anon_sym_yield, anon_sym_return, anon_sym_try,
       anon_sym_if, anon_sym_case, anon_sym_for, anon_sym_final, sym_void_type, anon_sym_var,
       sym_break_builtin, sym_assert_builtin, sym_rethrow_builtin, anon_sym_covariant,
       anon_sym_Function, anon_sym_get, anon_sym_set, anon_sym_new, sym_const_builtin,
       anon_sym_late, anon_sym_this, anon_sym_super, sym_identifier])])]"

lemma small_run_38: "small_run 546 5220 ts_small_parse_table_38 548 5380"
  by (simp add: small_simps ts_small_parse_table_38_def)

definition ts_small_parse_table_39 :: "small_group list" where
  "ts_small_parse_table_39 = [
     (5380, 8, [(ACTIONS 3, 1, [anon_sym_SLASH_SLASH]), (ACTIONS 5, 1, [anon_sym_SLASH_STAR]),
       (ACTIONS 7, 1, [anon_sym_SLASH_SLASH_SLASH]), (ACTIONS 9, 1, [sym__block_comment]),
       (ACTIONS 11, 1, [sym__documentation_block_comment]), (STATE 548, 2, [sym_comment,
       sym_documentation_comment]), (ACTIONS 1129, 15, [anon_sym_POUND, sym_hex_integer_literal,
       anon_sym_DQUOTE_DQUOTE_DQUOTE, anon_sym_SQUOTE_SQUOTE_SQUOTE,
       anon_sym_r_DQUOTE_DQUOTE_DQUOTE, anon_sym_r_SQUOTE_SQUOTE_SQUOTE, anon_sym_LBRACE,
       anon_sym_RBRACE, anon_sym_LBRACK, anon_sym_LPAREN, anon_sym_LT, sym_increment_operator,
       anon_sym_BANG, anon_sym_TILDE, anon_sym_AT]), (ACTIONS 1127, 40,
       [sym_decimal_integer_literal, sym_decimal_floating_point_literal, anon_sym_true,
       anon_sym_false, anon_sym_DQUOTE, anon_sym_SQUOTE, anon_sym_r_DQUOTE, anon_sym_r_SQUOTE,
       anon_sym_null, anon_sym_throw, sym_minus_operator, anon_sym_await, anon_sym_switch,
       anon_sym_default, anon_sym_do, anon_sym_while, anon_sym_continue, anon_sym_yield,
       anon_sym_return, anon_sym_try, anon_sym_if, anon_sym_case, anon_sym_else, anon_sym_for,
       anon_sym_final, sym_void_type, anon_sym_var, sym_break_builtin, sym_assert_builtin,
       sym_rethrow_builtin, anon_sym_covariant, anon_sym_Function, anon_sym_get, anon_sym_set,
       anon_sym_new, sym_const_builtin, anon_sym_late, anon_sym_this, anon_sym_super,
       sym_identifier])]),
     (5459, 8, [(ACTIONS 3, 1, [anon_sym_SLASH_SLASH]), (ACTIONS 5, 1, [anon_sym_SLASH_STAR]),
       (ACTIONS 7, 1, [anon_sym_SLASH_SLASH_SLASH]), (ACTIONS 9, 1, [sym__block_comment]),
       (ACTIONS 11, 1, [sym__documentation_block_comment]), (STATE 549, 2, [sym_comment,
       sym_documentation_comment]), (ACTIONS 1625, 15, [anon_sym_POUND, sym_hex_integer_literal,
       anon_sym_DQUOTE_DQUOTE_DQUOTE, anon_sym_SQUOTE_SQUOTE_SQUOTE,
       anon_sym_r_DQUOTE_DQUOTE_DQUOTE, anon_sym_r_SQUOTE_SQUOTE_SQUOTE, anon_sym_LBRACE,
       anon_sym_RBRACE, anon_sym_LBRACK, anon_sym_LPAREN, anon_sym_LT, sym_increment_operator,
       anon_sym_BANG, anon_sym_TILDE, anon_sym_AT]), (ACTIONS 1623, 40,
       [sym_decimal_integer_literal, sym_decimal_floating_point_literal, anon_sym_true,
       anon_sym_false, anon_sym_DQUOTE, anon_sym_SQUOTE, anon_sym_r_DQUOTE, anon_sym_r_SQUOTE,
       anon_sym_null, anon_sym_throw, sym_minus_operator, anon_sym_await, anon_sym_switch,
       anon_sym_default, anon_sym_do, anon_sym_while, anon_sym_continue, anon_sym_yield,
       anon_sym_return, anon_sym_try, anon_sym_if, anon_sym_case, anon_sym_else, anon_sym_for,
       anon_sym_final, sym_void_type, anon_sym_var, sym_break_builtin, sym_assert_builtin,
       sym_rethrow_builtin, anon_sym_covariant, anon_sym_Function, anon_sym_get, anon_sym_set,
       anon_sym_new, sym_const_builtin, anon_sym_late, anon_sym_this, anon_sym_super,
       sym_identifier])])]"

lemma small_run_39: "small_run 548 5380 ts_small_parse_table_39 550 5538"
  by (simp add: small_simps ts_small_parse_table_39_def)

definition ts_small_parse_table_40 :: "small_group list" where
  "ts_small_parse_table_40 = [
     (5538, 58, [(ACTIONS 3, 1, [anon_sym_SLASH_SLASH]), (ACTIONS 5, 1, [anon_sym_SLASH_STAR]),
       (ACTIONS 7, 1, [anon_sym_SLASH_SLASH_SLASH]), (ACTIONS 9, 1, [sym__block_comment]),
       (ACTIONS 11, 1, [sym__documentation_block_comment]), (ACTIONS 15, 1, [sym_identifier]),
       (ACTIONS 17, 1, [anon_sym_LPAREN]), (ACTIONS 25, 1, [anon_sym_final]), (ACTIONS 27, 1,
       [anon_sym_inline]), (ACTIONS 29, 1, [anon_sym_class]), (ACTIONS 33, 1, [sym_void_type]),
       (ACTIONS 35, 1, [anon_sym_var]), (ACTIONS 43, 1, [anon_sym_export]), (ACTIONS 45, 1,
       [anon_sym_Function]), (ACTIONS 47, 1, [anon_sym_get]), (ACTIONS 49, 1, [anon_sym_import]),
       (ACTIONS 51, 1, [anon_sym_interface]), (ACTIONS 53, 1, [anon_sym_base]), (ACTIONS 55, 1,
       [anon_sym_abstract]), (ACTIONS 57, 1, [anon_sym_sealed]), (ACTIONS 59, 1,
       [anon_sym_mixin]), (ACTIONS 61, 1, [anon_sym_set]), (ACTIONS 63, 1, [anon_sym_typedef]),
       (ACTIONS 67, 1, [anon_sym_late]), (ACTIONS 69, 1, [anon_sym_external]), (ACTIONS 1627, 1,
       [anon_sym_part]), (ACTIONS 1629, 1, [anon_sym_enum]), (ACTIONS 1631, 1,
       [anon_sym_extension]), (ACTIONS 1633, 1, [anon_sym_library]), (ACTIONS 1635, 1,
       [sym_part_of_builtin]), (ACTIONS 1637, 1, [sym_const_builtin]), (STATE 1463, 1,
       [sym__function_builtin_identifier]), (STATE 1530, 1, [sym__type_name]), (STATE 1576, 1,
       [sym_import_specification]), (STATE 1605, 1, [aux_sym__function_type_tails]), (STATE 1704,
       1, [sym__function_type_tail]), (STATE 1796, 1, [sym__type_not_function]), (STATE 1805, 1,
       [sym_record_type]), (STATE 1817, 1, [sym__import]), (STATE 1840, 1, [sym__export]), (STATE
       1848, 1, [sym_function_type]), (STATE 1880, 1, [sym__external_builtin]), (STATE 1896, 1,
       [sym__type_not_void_not_function]), (STATE 1934, 1, [sym__late_builtin]), (STATE 1971, 1,
       [sym_final_builtin]), (STATE 2073, 1, [sym__typedef]), (STATE 2228, 1, [sym_abstract]),
       (STATE 2377, 1, [sym__set]), (STATE 2411, 1, [sym__get]), (STATE 2419, 1, [sym__type]),
       (STATE 2970, 1, [sym_inferred_type]), (STATE 3001, 1, [sym_base]), (STATE 3026, 1,
       [sym_mixin]), (STATE 3032, 1, [sym__class_modifiers]), (STATE 3560, 1,
       [sym__mixin_class_modifiers]), (STATE 550, 2, [sym_comment, sym_documentation_comment]),
       (STATE 3539, 2, [sym_interface, sym_sealed]), (STATE 2195, 3, [sym_getter_signature,
       sym_setter_signature, sym_function_signature])])]"

lemma small_run_40: "small_run 550 5538 ts_small_parse_table_40 551 5717"
  by (simp add: small_simps ts_small_parse_table_40_def)

definition ts_small_parse_table_41 :: "small_group list" where
  "ts_small_parse_table_41 = [
     (5717, 8, [(ACTIONS 3, 1, [anon_sym_SLASH_SLASH]), (ACTIONS 5, 1, [anon_sym_SLASH_STAR]),
       (ACTIONS 7, 1, [anon_sym_SLASH_SLASH_SLASH]), (ACTIONS 9, 1, [sym__block_comment]),
       (ACTIONS 11, 1, [sym__documentation_block_comment]), (STATE 551, 2, [sym_comment,
       sym_documentation_comment]), (ACTIONS 1641, 15, [anon_sym_POUND, sym_hex_integer_literal,
       anon_sym_DQUOTE_DQUOTE_DQUOTE, anon_sym_SQUOTE_SQUOTE_SQUOTE,
       anon_sym_r_DQUOTE_DQUOTE_DQUOTE, anon_sym_r_SQUOTE_SQUOTE_SQUOTE, anon_sym_LBRACE,
       anon_sym_RBRACE, anon_sym_LBRACK, anon_sym_LPAREN, anon_sym_LT, sym_increment_operator,
       anon_sym_BANG, anon_sym_TILDE, anon_sym_AT]), (ACTIONS 1639, 40,
       [sym_decimal_integer_literal, sym_decimal_floating_point_literal, anon_sym_true,
       anon_sym_false, anon_sym_DQUOTE, anon_sym_SQUOTE, anon_sym_r_DQUOTE, anon_sym_r_SQUOTE,
       anon_sym_null, anon_sym_throw, sym_minus_operator, anon_sym_await, anon_sym_switch,
       anon_sym_default, anon_sym_do, anon_sym_while, anon_sym_continue, anon_sym_yield,
       anon_sym_return, anon_sym_try, anon_sym_if, anon_sym_case, anon_sym_else, anon_sym_for,
       anon_sym_final, sym_void_type, anon_sym_var, sym_break_builtin, sym_assert_builtin,
       sym_rethrow_builtin, anon_sym_covariant, anon_sym_Function, anon_sym_get, anon_sym_set,
       anon_sym_new, sym_const_builtin, anon_sym_late, anon_sym_this, anon_sym_super,
       sym_identifier])]),
     (5796, 8, [(ACTIONS 3, 1, [anon_sym_SLASH_SLASH]), (ACTIONS 5, 1, [anon_sym_SLASH_STAR]),
       (ACTIONS 7, 1, [anon_sym_SLASH_SLASH_SLASH]), (ACTIONS 9, 1, [sym__block_comment]),
       (ACTIONS 11, 1, [sym__documentation_block_comment]), (STATE 552, 2, [sym_comment,
       sym_documentation_comment]), (ACTIONS 1645, 19, [anon_sym_EQ, anon_sym_QMARK_QMARK,
       anon_sym_QMARK, anon_sym_LT, anon_sym_GT, anon_sym_PIPE, anon_sym_CARET, anon_sym_AMP,
       anon_sym_LT_LT, anon_sym_GT_GT, anon_sym_GT_GT_GT, sym__additive_operator, anon_sym_STAR,
       anon_sym_SLASH, anon_sym_PERCENT, anon_sym_TILDE_SLASH, anon_sym_BANG, anon_sym_DOT,
       anon_sym_QMARK_DOT]), (ACTIONS 1643, 35, [anon_sym_RBRACE, anon_sym_LBRACK,
       anon_sym_COMMA, anon_sym_RBRACK, anon_sym_COLON, anon_sym_LPAREN, anon_sym_RPAREN,
       anon_sym_PLUS_EQ, anon_sym_DASH_EQ, anon_sym_STAR_EQ, anon_sym_SLASH_EQ,
       anon_sym_PERCENT_EQ, anon_sym_TILDE_SLASH_EQ, anon_sym_LT_LT_EQ, anon_sym_GT_GT_EQ,
       anon_sym_GT_GT_GT_EQ, anon_sym_AMP_EQ, anon_sym_CARET_EQ, anon_sym_PIPE_EQ,
       anon_sym_QMARK_QMARK_EQ, sym_equality_operator, anon_sym_LT_EQ, anon_sym_GT_EQ,
       sym_increment_operator, anon_sym_is, anon_sym_as, anon_sym_DOT_DOT,
       anon_sym_QMARK_DOT_DOT, anon_sym_SEMI, anon_sym_EQ_GT, anon_sym_when, anon_sym_case,
       anon_sym_else, anon_sym_AMP_AMP, anon_sym_PIPE_PIPE])])]"

lemma small_run_41: "small_run 551 5717 ts_small_parse_table_41 553 5874"
  by (simp add: small_simps ts_small_parse_table_41_def)

definition ts_small_parse_table_42 :: "small_group list" where
  "ts_small_parse_table_42 = [
     (5874, 41, [(ACTIONS 3, 1, [anon_sym_SLASH_SLASH]), (ACTIONS 5, 1, [anon_sym_SLASH_STAR]),
       (ACTIONS 7, 1, [anon_sym_SLASH_SLASH_SLASH]), (ACTIONS 9, 1, [sym__block_comment]),
       (ACTIONS 11, 1, [sym__documentation_block_comment]), (ACTIONS 1273, 1, [anon_sym_GT_GT]),
       (ACTIONS 1275, 1, [sym__additive_operator]), (ACTIONS 1279, 1, [anon_sym_is]), (ACTIONS
       1286, 1, [anon_sym_AMP_AMP]), (ACTIONS 1288, 1, [anon_sym_PIPE_PIPE]), (ACTIONS 1436, 1,
       [anon_sym_QMARK_QMARK]), (ACTIONS 1438, 1, [anon_sym_QMARK]), (ACTIONS 1440, 1,
       [sym_equality_operator]), (ACTIONS 1442, 1, [anon_sym_PIPE]), (ACTIONS 1444, 1,
       [anon_sym_CARET]), (ACTIONS 1446, 1, [anon_sym_AMP]), (ACTIONS 1448, 1, [anon_sym_as]),
       (STATE 317, 1, [sym_relational_operator]), (STATE 319, 1, [sym_shift_operator]), (STATE
       321, 1, [sym_additive_operator]), (STATE 334, 1, [sym_logical_and_operator]), (STATE 336,
       1, [sym_logical_or_operator]), (STATE 987, 1, [aux_sym_shift_expression_repeat1]), (STATE
       1005, 1, [aux_sym_additive_expression_repeat1]), (STATE 1008, 1,
       [aux_sym_logical_and_expression_repeat1]), (STATE 1010, 1,
       [aux_sym_logical_or_expression_repeat1]), (STATE 1054, 1, [aux_sym__if_null_expression]),
       (STATE 1063, 1, [aux_sym_bitwise_xor_expression_repeat1]), (STATE 1072, 1,
       [aux_sym_bitwise_or_expression_repeat1]), (STATE 1084, 1,
       [aux_sym_bitwise_and_expression_repeat1]), (STATE 1118, 1, [sym_type_cast]), (STATE 1143,
       1, [sym_type_test]), (STATE 1397, 1, [sym__shift_operator]), (STATE 2064, 1,
       [sym_as_operator]), (STATE 2066, 1, [sym_is_operator]), (ACTIONS 400, 2, [anon_sym_LT,
       anon_sym_GT]), (ACTIONS 402, 2, [anon_sym_LT_EQ, anon_sym_GT_EQ]), (ACTIONS 1271, 2,
       [anon_sym_LT_LT, anon_sym_GT_GT_GT]), (STATE 553, 2, [sym_comment,
       sym_documentation_comment]), (ACTIONS 1359, 5, [anon_sym_SLASH, anon_sym_BANG,
       anon_sym_DOT, anon_sym_QMARK_DOT, anon_sym_async]), (ACTIONS 1357, 13, [anon_sym_LBRACE,
       anon_sym_LBRACK, anon_sym_COMMA, anon_sym_LPAREN, anon_sym_STAR, anon_sym_PERCENT,
       anon_sym_TILDE_SLASH, anon_sym_DOT_DOT, anon_sym_QMARK_DOT_DOT, anon_sym_SEMI,
       anon_sym_EQ_GT, anon_sym_async_STAR, anon_sym_sync_STAR])])]"

lemma small_run_42: "small_run 553 5874 ts_small_parse_table_42 554 6018"
  by (simp add: small_simps ts_small_parse_table_42_def)

definition ts_small_parse_table_43 :: "small_group list" where
  "ts_small_parse_table_43 = [
     (6018, 41, [(ACTIONS 3, 1, [anon_sym_SLASH_SLASH]), (ACTIONS 5, 1, [anon_sym_SLASH_STAR]),
       (ACTIONS 7, 1, [anon_sym_SLASH_SLASH_SLASH]), (ACTIONS 9, 1, [sym__block_comment]),
       (ACTIONS 11, 1, [sym__documentation_block_comment]), (ACTIONS 1273, 1, [anon_sym_GT_GT]),
       (ACTIONS 1275, 1, [sym__additive_operator]), (ACTIONS 1279, 1, [anon_sym_is]), (ACTIONS
       1286, 1, [anon_sym_AMP_AMP]), (ACTIONS 1288, 1, [anon_sym_PIPE_PIPE]), (ACTIONS 1436, 1,
       [anon_sym_QMARK_QMARK]), (ACTIONS 1438, 1, [anon_sym_QMARK]), (ACTIONS 1440, 1,
       [sym_equality_operator]), (ACTIONS 1442, 1, [anon_sym_PIPE]), (ACTIONS 1444, 1,
       [anon_sym_CARET]), (ACTIONS 1446, 1, [anon_sym_AMP]), (ACTIONS 1448, 1, [anon_sym_as]),
       (STATE 317, 1, [sym_relational_operator]), (STATE 319, 1, [sym_shift_operator]), (STATE
       321, 1, [sym_additive_operator]), (STATE 334, 1, [sym_logical_and_operator]), (STATE 336,
       1, [sym_logical_or_operator]), (STATE 987, 1, [aux_sym_shift_expression_repeat1]), (STATE
       1005, 1, [aux_sym_additive_expression_repeat1]), (STATE 1008, 1,
       [aux_sym_logical_and_expression_repeat1]), (STATE 1010, 1,
       [aux_sym_logical_or_expression_repeat1]), (STATE 1054, 1, [aux_sym__if_null_expression]),
       (STATE 1063, 1, [aux_sym_bitwise_xor_expression_repeat1]), (STATE 1072, 1,
       [aux_sym_bitwise_or_expression_repeat1]), (STATE 1084, 1,
       [aux_sym_bitwise_and_expression_repeat1]), (STATE 1118, 1, [sym_type_cast]), (STATE 1143,
       1, [sym_type_test]), (STATE 1397, 1, [sym__shift_operator]), (STATE 2064, 1,
       [sym_as_operator]), (STATE 2066, 1, [sym_is_operator]), (ACTIONS 400, 2, [anon_sym_LT,
       anon_sym_GT]), (ACTIONS 402, 2, [anon_sym_LT_EQ, anon_sym_GT_EQ]), (ACTIONS 1271, 2,
       [anon_sym_LT_LT, anon_sym_GT_GT_GT]), (STATE 554, 2, [sym_comment,
       sym_documentation_comment]), (ACTIONS 1412, 5, [anon_sym_SLASH, anon_sym_BANG,
       anon_sym_DOT, anon_sym_QMARK_DOT, anon_sym_async]), (ACTIONS 1410, 13, [anon_sym_LBRACE,
       anon_sym_LBRACK, anon_sym_COMMA, anon_sym_LPAREN, anon_sym_STAR, anon_sym_PERCENT,
       anon_sym_TILDE_SLASH, anon_sym_DOT_DOT, anon_sym_QMARK_DOT_DOT, anon_sym_SEMI,
       anon_sym_EQ_GT, anon_sym_async_STAR, anon_sym_sync_STAR])])]"

lemma small_run_43: "small_run 554 6018 ts_small_parse_table_43 555 6162"
  by (simp add: small_simps ts_small_parse_table_43_def)

definition ts_small_parse_table_44 :: "small_group list" where
  "ts_small_parse_table_44 = [
     (6162, 37, [(ACTIONS 3, 1, [anon_sym_SLASH_SLASH]), (ACTIONS 5, 1, [anon_sym_SLASH_STAR]),
       (ACTIONS 7, 1, [anon_sym_SLASH_SLASH_SLASH]), (ACTIONS 9, 1, [sym__block_comment]),
       (ACTIONS 11, 1, [sym__documentation_block_comment]), (ACTIONS 1273, 1, [anon_sym_GT_GT]),
       (ACTIONS 1275, 1, [sym__additive_operator]), (ACTIONS 1279, 1, [anon_sym_is]), (ACTIONS
       1442, 1, [anon_sym_PIPE]), (ACTIONS 1444, 1, [anon_sym_CARET]), (ACTIONS 1446, 1,
       [anon_sym_AMP]), (ACTIONS 1448, 1, [anon_sym_as]), (ACTIONS 1647, 1,
       [sym_equality_operator]), (STATE 317, 1, [sym_relational_operator]), (STATE 319, 1,
       [sym_shift_operator]), (STATE 321, 1, [sym_additive_operator]), (STATE 334, 1,
       [sym_logical_and_operator]), (STATE 336, 1, [sym_logical_or_operator]), (STATE 987, 1,
       [aux_sym_shift_expression_repeat1]), (STATE 1005, 1,
       [aux_sym_additive_expression_repeat1]), (STATE 1008, 1,
       [aux_sym_logical_and_expression_repeat1]), (STATE 1010, 1,
       [aux_sym_logical_or_expression_repeat1]), (STATE 1054, 1, [aux_sym__if_null_expression]),
       (STATE 1063, 1, [aux_sym_bitwise_xor_expression_repeat1]), (STATE 1072, 1,
       [aux_sym_bitwise_or_expression_repeat1]), (STATE 1084, 1,
       [aux_sym_bitwise_and_expression_repeat1]), (STATE 1118, 1, [sym_type_cast]), (STATE 1143,
       1, [sym_type_test]), (STATE 1397, 1, [sym__shift_operator]), (STATE 2064, 1,
       [sym_as_operator]), (STATE 2066, 1, [sym_is_operator]), (ACTIONS 400, 2, [anon_sym_LT,
       anon_sym_GT]), (ACTIONS 402, 2, [anon_sym_LT_EQ, anon_sym_GT_EQ]), (ACTIONS 1271, 2,
       [anon_sym_LT_LT, anon_sym_GT_GT_GT]), (STATE 555, 2, [sym_comment,
       sym_documentation_comment]), (ACTIONS 1401, 6, [anon_sym_QMARK, anon_sym_SLASH,
       anon_sym_BANG, anon_sym_DOT, anon_sym_QMARK_DOT, anon_sym_async]), (ACTIONS 1399, 16,
       [anon_sym_LBRACE, anon_sym_LBRACK, anon_sym_COMMA, anon_sym_LPAREN, anon_sym_QMARK_QMARK,
       anon_sym_STAR, anon_sym_PERCENT, anon_sym_TILDE_SLASH, anon_sym_DOT_DOT,
       anon_sym_QMARK_DOT_DOT, anon_sym_SEMI, anon_sym_EQ_GT, anon_sym_async_STAR,
       anon_sym_sync_STAR, anon_sym_AMP_AMP, anon_sym_PIPE_PIPE])])]"

lemma small_run_44: "small_run 555 6162 ts_small_parse_table_44 556 6298"
  by (simp add: small_simps ts_small_parse_table_44_def)

definition ts_small_parse_table_45 :: "small_group list" where
  "ts_small_parse_table_45 = [
     (6298, 8, [(ACTIONS 3, 1, [anon_sym_SLASH_SLASH]), (ACTIONS 5, 1, [anon_sym_SLASH_STAR]),
       (ACTIONS 7, 1, [anon_sym_SLASH_SLASH_SLASH]), (ACTIONS 9, 1, [sym__block_comment]),
       (ACTIONS 11, 1, [sym__documentation_block_comment]), (STATE 556, 2, [sym_comment,
       sym_documentation_comment]), (ACTIONS 1652, 15, [anon_sym_POUND, sym_hex_integer_literal,
       anon_sym_DQUOTE_DQUOTE_DQUOTE, anon_sym_SQUOTE_SQUOTE_SQUOTE,
       anon_sym_r_DQUOTE_DQUOTE_DQUOTE, anon_sym_r_SQUOTE_SQUOTE_SQUOTE, anon_sym_LBRACE,
       anon_sym_RBRACE, anon_sym_LBRACK, anon_sym_LPAREN, anon_sym_LT, sym_increment_operator,
       anon_sym_BANG, anon_sym_TILDE, anon_sym_AT]), (ACTIONS 1650, 39,
       [sym_decimal_integer_literal, sym_decimal_floating_point_literal, anon_sym_true,
       anon_sym_false, anon_sym_DQUOTE, anon_sym_SQUOTE, anon_sym_r_DQUOTE, anon_sym_r_SQUOTE,
       anon_sym_null, anon_sym_throw, sym_minus_operator, anon_sym_await, anon_sym_switch,
       anon_sym_default, anon_sym_do, anon_sym_while, anon_sym_continue, anon_sym_yield,
       anon_sym_return, anon_sym_try, anon_sym_if, anon_sym_case, anon_sym_for, anon_sym_final,
       sym_void_type, anon_sym_var, sym_break_builtin, sym_assert_builtin, sym_rethrow_builtin,
       anon_sym_covariant, anon_sym_Function, anon_sym_get, anon_sym_set, anon_sym_new,
       sym_const_builtin, anon_sym_late, anon_sym_this, anon_sym_super, sym_identifier])])]"

lemma small_run_45: "small_run 556 6298 ts_small_parse_table_45 557 6376"
  by (simp add: small_simps ts_small_parse_table_45_def)

definition ts_small_parse_table_46 :: "small_group list" where
  "ts_small_parse_table_46 = [
     (6376, 41, [(ACTIONS 3, 1, [anon_sym_SLASH_SLASH]), (ACTIONS 5, 1, [anon_sym_SLASH_STAR]),
       (ACTIONS 7, 1, [anon_sym_SLASH_SLASH_SLASH]), (ACTIONS 9, 1, [sym__block_comment]),
       (ACTIONS 11, 1, [sym__documentation_block_comment]), (ACTIONS 1273, 1, [anon_sym_GT_GT]),
       (ACTIONS 1275, 1, [sym__additive_operator]), (ACTIONS 1279, 1, [anon_sym_is]), (ACTIONS
       1286, 1, [anon_sym_AMP_AMP]), (ACTIONS 1288, 1, [anon_sym_PIPE_PIPE]), (ACTIONS 1436, 1,
       [anon_sym_QMARK_QMARK]), (ACTIONS 1438, 1, [anon_sym_QMARK]), (ACTIONS 1440, 1,
       [sym_equality_operator]), (ACTIONS 1442, 1, [anon_sym_PIPE]), (ACTIONS 1444, 1,
       [anon_sym_CARET]), (ACTIONS 1446, 1, [anon_sym_AMP]), (ACTIONS 1448, 1, [anon_sym_as]),
       (STATE 317, 1, [sym_relational_operator]), (STATE 319, 1, [sym_shift_operator]), (STATE
       321, 1, [sym_additive_operator]), (STATE 334, 1, [sym_logical_and_operator]), (STATE 336,
       1, [sym_logical_or_operator]), (STATE 987, 1, [aux_sym_shift_expression_repeat1]), (STATE
       1005, 1, [aux_sym_additive_expression_repeat1]), (STATE 1008, 1,
       [aux_sym_logical_and_expression_repeat1]), (STATE 1010, 1,
       [aux_sym_logical_or_expression_repeat1]), (STATE 1054, 1, [aux_sym__if_null_expression]),
       (STATE 1063, 1, [aux_sym_bitwise_xor_expression_repeat1]), (STATE 1072, 1,
       [aux_sym_bitwise_or_expression_repeat1]), (STATE 1084, 1,
       [aux_sym_bitwise_and_expression_repeat1]), (STATE 1118, 1, [sym_type_cast]), (STATE 1143,
       1, [sym_type_test]), (STATE 1397, 1, [sym__shift_operator]), (STATE 2064, 1,
       [sym_as_operator]), (STATE 2066, 1, [sym_is_operator]), (ACTIONS 400, 2, [anon_sym_LT,
       anon_sym_GT]), (ACTIONS 402, 2, [anon_sym_LT_EQ, anon_sym_GT_EQ]), (ACTIONS 1271, 2,
       [anon_sym_LT_LT, anon_sym_GT_GT_GT]), (STATE 557, 2, [sym_comment,
       sym_documentation_comment]), (ACTIONS 1416, 5, [anon_sym_SLASH, anon_sym_BANG,
       anon_sym_DOT, anon_sym_QMARK_DOT, anon_sym_async]), (ACTIONS 1414, 13, [anon_sym_LBRACE,
       anon_sym_LBRACK, anon_sym_COMMA, anon_sym_LPAREN, anon_sym_STAR, anon_sym_PERCENT,
       anon_sym_TILDE_SLASH, anon_sym_DOT_DOT, anon_sym_QMARK_DOT_DOT, anon_sym_SEMI,
       anon_sym_EQ_GT, anon_sym_async_STAR, anon_sym_sync_STAR])])]"

lemma small_run_46: "small_run 557 6376 ts_small_parse_table_46 558 6520"
  by (simp add: small_simps ts_small_parse_table_46_def)

definition ts_small_parse_table_47 :: "small_group list" where
  "ts_small_parse_table_47 = [
     (6520, 41, [(ACTIONS 3, 1, [anon_sym_SLASH_SLASH]), (ACTIONS 5, 1, [anon_sym_SLASH_STAR]),
       (ACTIONS 7, 1, [anon_sym_SLASH_SLASH_SLASH]), (ACTIONS 9, 1, [sym__block_comment]),
       (ACTIONS 11, 1, [sym__documentation_block_comment]), (ACTIONS 1273, 1, [anon_sym_GT_GT]),
       (ACTIONS 1275, 1, [sym__additive_operator]), (ACTIONS 1279, 1, [anon_sym_is]), (ACTIONS
       1286, 1, [anon_sym_AMP_AMP]), (ACTIONS 1288, 1, [anon_sym_PIPE_PIPE]), (ACTIONS 1436, 1,
       [anon_sym_QMARK_QMARK]), (ACTIONS 1438, 1, [anon_sym_QMARK]), (ACTIONS 1440, 1,
       [sym_equality_operator]), (ACTIONS 1442, 1, [anon_sym_PIPE]), (ACTIONS 1444, 1,
       [anon_sym_CARET]), (ACTIONS 1446, 1, [anon_sym_AMP]), (ACTIONS 1448, 1, [anon_sym_as]),
       (STATE 317, 1, [sym_relational_operator]), (STATE 319, 1, [sym_shift_operator]), (STATE
       321, 1, [sym_additive_operator]), (STATE 334, 1, [sym_logical_and_operator]), (STATE 336,
       1, [sym_logical_or_operator]), (STATE 987, 1, [aux_sym_shift_expression_repeat1]), (STATE
       1005, 1, [aux_sym_additive_expression_repeat1]), (STATE 1008, 1,
       [aux_sym_logical_and_expression_repeat1]), (STATE 1010, 1,
       [aux_sym_logical_or_expression_repeat1]), (STATE 1054, 1, [aux_sym__if_null_expression]),
       (STATE 1063, 1, [aux_sym_bitwise_xor_expression_repeat1]), (STATE 1072, 1,
       [aux_sym_bitwise_or_expression_repeat1]), (STATE 1084, 1,
       [aux_sym_bitwise_and_expression_repeat1]), (STATE 1118, 1, [sym_type_cast]), (STATE 1143,
       1, [sym_type_test]), (STATE 1397, 1, [sym__shift_operator]), (STATE 2064, 1,
       [sym_as_operator]), (STATE 2066, 1, [sym_is_operator]), (ACTIONS 400, 2, [anon_sym_LT,
       anon_sym_GT]), (ACTIONS 402, 2, [anon_sym_LT_EQ, anon_sym_GT_EQ]), (ACTIONS 1271, 2,
       [anon_sym_LT_LT, anon_sym_GT_GT_GT]), (STATE 558, 2, [sym_comment,
       sym_documentation_comment]), (ACTIONS 1420, 5, [anon_sym_SLASH, anon_sym_BANG,
       anon_sym_DOT, anon_sym_QMARK_DOT, anon_sym_async]), (ACTIONS 1418, 13, [anon_sym_LBRACE,
       anon_sym_LBRACK, anon_sym_COMMA, anon_sym_LPAREN, anon_sym_STAR, anon_sym_PERCENT,
       anon_sym_TILDE_SLASH, anon_sym_DOT_DOT, anon_sym_QMARK_DOT_DOT, anon_sym_SEMI,
       anon_sym_EQ_GT, anon_sym_async_STAR, anon_sym_sync_STAR])])]"

lemma small_run_47: "small_run 558 6520 ts_small_parse_table_47 559 6664"
  by (simp add: small_simps ts_small_parse_table_47_def)

definition ts_small_parse_table_48 :: "small_group list" where
  "ts_small_parse_table_48 = [
     (6664, 41, [(ACTIONS 3, 1, [anon_sym_SLASH_SLASH]), (ACTIONS 5, 1, [anon_sym_SLASH_STAR]),
       (ACTIONS 7, 1, [anon_sym_SLASH_SLASH_SLASH]), (ACTIONS 9, 1, [sym__block_comment]),
       (ACTIONS 11, 1, [sym__documentation_block_comment]), (ACTIONS 1273, 1, [anon_sym_GT_GT]),
       (ACTIONS 1275, 1, [sym__additive_operator]), (ACTIONS 1279, 1, [anon_sym_is]), (ACTIONS
       1286, 1, [anon_sym_AMP_AMP]), (ACTIONS 1288, 1, [anon_sym_PIPE_PIPE]), (ACTIONS 1436, 1,
       [anon_sym_QMARK_QMARK]), (ACTIONS 1438, 1, [anon_sym_QMARK]), (ACTIONS 1440, 1,
       [sym_equality_operator]), (ACTIONS 1442, 1, [anon_sym_PIPE]), (ACTIONS 1444, 1,
       [anon_sym_CARET]), (ACTIONS 1446, 1, [anon_sym_AMP]), (ACTIONS 1448, 1, [anon_sym_as]),
       (STATE 317, 1, [sym_relational_operator]), (STATE 319, 1, [sym_shift_operator]), (STATE
       321, 1, [sym_additive_operator]), (STATE 334, 1, [sym_logical_and_operator]), (STATE 336,
       1, [sym_logical_or_operator]), (STATE 987, 1, [aux_sym_shift_expression_repeat1]), (STATE
       1005, 1, [aux_sym_additive_expression_repeat1]), (STATE 1008, 1,
       [aux_sym_logical_and_expression_repeat1]), (STATE 1010, 1,
       [aux_sym_logical_or_expression_repeat1]), (STATE 1054, 1, [aux_sym__if_null_expression]),
       (STATE 1063, 1, [aux_sym_bitwise_xor_expression_repeat1]), (STATE 1072, 1,
       [aux_sym_bitwise_or_expression_repeat1]), (STATE 1084, 1,
       [aux_sym_bitwise_and_expression_repeat1]), (STATE 1118, 1, [sym_type_cast]), (STATE 1143,
       1, [sym_type_test]), (STATE 1397, 1, [sym__shift_operator]), (STATE 2064, 1,
       [sym_as_operator]), (STATE 2066, 1, [sym_is_operator]), (ACTIONS 400, 2, [anon_sym_LT,
       anon_sym_GT]), (ACTIONS 402, 2, [anon_sym_LT_EQ, anon_sym_GT_EQ]), (ACTIONS 1271, 2,
       [anon_sym_LT_LT, anon_sym_GT_GT_GT]), (STATE 559, 2, [sym_comment,
       sym_documentation_comment]), (ACTIONS 1434, 5, [anon_sym_SLASH, anon_sym_BANG,
       anon_sym_DOT, anon_sym_QMARK_DOT, anon_sym_async]), (ACTIONS 1432, 13, [anon_sym_LBRACE,
       anon_sym_LBRACK, anon_sym_COMMA, anon_sym_LPAREN, anon_sym_STAR, anon_sym_PERCENT,
       anon_sym_TILDE_SLASH, anon_sym_DOT_DOT, anon_sym_QMARK_DOT_DOT, anon_sym_SEMI,
       anon_sym_EQ_GT, anon_sym_async_STAR, anon_sym_sync_STAR])])]"

lemma small_run_48: "small_run 559 6664 ts_small_parse_table_48 560 6808"
  by (simp add: small_simps ts_small_parse_table_48_def)

definition ts_small_parse_table_49 :: "small_group list" where
  "ts_small_parse_table_49 = [
     (6808, 57, [(ACTIONS 3, 1, [anon_sym_SLASH_SLASH]), (ACTIONS 5, 1, [anon_sym_SLASH_STAR]),
       (ACTIONS 7, 1, [anon_sym_SLASH_SLASH_SLASH]), (ACTIONS 9, 1, [sym__block_comment]),
       (ACTIONS 11, 1, [sym__documentation_block_comment]), (ACTIONS 15, 1, [sym_identifier]),
       (ACTIONS 17, 1, [anon_sym_LPAREN]), (ACTIONS 25, 1, [anon_sym_final]), (ACTIONS 27, 1,
       [anon_sym_inline]), (ACTIONS 29, 1, [anon_sym_class]), (ACTIONS 33, 1, [sym_void_type]),
       (ACTIONS 35, 1, [anon_sym_var]), (ACTIONS 43, 1, [anon_sym_export]), (ACTIONS 45, 1,
       [anon_sym_Function]), (ACTIONS 47, 1, [anon_sym_get]), (ACTIONS 49, 1, [anon_sym_import]),
       (ACTIONS 51, 1, [anon_sym_interface]), (ACTIONS 53, 1, [anon_sym_base]), (ACTIONS 55, 1,
       [anon_sym_abstract]), (ACTIONS 57, 1, [anon_sym_sealed]), (ACTIONS 59, 1,
       [anon_sym_mixin]), (ACTIONS 61, 1, [anon_sym_set]), (ACTIONS 63, 1, [anon_sym_typedef]),
       (ACTIONS 67, 1, [anon_sym_late]), (ACTIONS 69, 1, [anon_sym_external]), (ACTIONS 1627, 1,
       [anon_sym_part]), (ACTIONS 1629, 1, [anon_sym_enum]), (ACTIONS 1631, 1,
       [anon_sym_extension]), (ACTIONS 1635, 1, [sym_part_of_builtin]), (ACTIONS 1637, 1,
       [sym_const_builtin]), (STATE 1463, 1, [sym__function_builtin_identifier]), (STATE 1530, 1,
       [sym__type_name]), (STATE 1576, 1, [sym_import_specification]), (STATE 1605, 1,
       [aux_sym__function_type_tails]), (STATE 1704, 1, [sym__function_type_tail]), (STATE 1796,
       1, [sym__type_not_function]), (STATE 1805, 1, [sym_record_type]), (STATE 1817, 1,
       [sym__import]), (STATE 1840, 1, [sym__export]), (STATE 1848, 1, [sym_function_type]),
       (STATE 1880, 1, [sym__external_builtin]), (STATE 1896, 1,
       [sym__type_not_void_not_function]), (STATE 1934, 1, [sym__late_builtin]), (STATE 1971, 1,
       [sym_final_builtin]), (STATE 2073, 1, [sym__typedef]), (STATE 2228, 1, [sym_abstract]),
       (STATE 2377, 1, [sym__set]), (STATE 2411, 1, [sym__get]), (STATE 2419, 1, [sym__type]),
       (STATE 2970, 1, [sym_inferred_type]), (STATE 3001, 1, [sym_base]), (STATE 3026, 1,
       [sym_mixin]), (STATE 3032, 1, [sym__class_modifiers]), (STATE 3560, 1,
       [sym__mixin_class_modifiers]), (STATE 560, 2, [sym_comment, sym_documentation_comment]),
       (STATE 3539, 2, [sym_interface, sym_sealed]), (STATE 2195, 3, [sym_getter_signature,
       sym_setter_signature, sym_function_signature])])]"

lemma small_run_49: "small_run 560 6808 ts_small_parse_table_49 561 6984"
  by (simp add: small_simps ts_small_parse_table_49_def)

definition ts_small_parse_table_50 :: "small_group list" where
  "ts_small_parse_table_50 = [
     (6984, 14, [(ACTIONS 3, 1, [anon_sym_SLASH_SLASH]), (ACTIONS 5, 1, [anon_sym_SLASH_STAR]),
       (ACTIONS 7, 1, [anon_sym_SLASH_SLASH_SLASH]), (ACTIONS 9, 1, [sym__block_comment]),
       (ACTIONS 11, 1, [sym__documentation_block_comment]), (ACTIONS 1392, 1, [anon_sym_LT]),
       (ACTIONS 1654, 1, [anon_sym_LPAREN]), (STATE 573, 1, [aux_sym_cascade_section_repeat1]),
       (STATE 650, 1, [sym_argument_part]), (STATE 653, 1, [sym_arguments]), (STATE 3126, 1,
       [sym_type_arguments]), (STATE 561, 2, [sym_comment, sym_documentation_comment]), (ACTIONS
       1390, 20, [anon_sym_EQ, anon_sym_QMARK_QMARK, anon_sym_QMARK, anon_sym_GT, anon_sym_PIPE,
       anon_sym_CARET, anon_sym_AMP, anon_sym_LT_LT, anon_sym_GT_GT, anon_sym_GT_GT_GT,
       sym__additive_operator, anon_sym_STAR, anon_sym_SLASH, anon_sym_PERCENT,
       anon_sym_TILDE_SLASH, anon_sym_BANG, anon_sym_as, anon_sym_DOT, anon_sym_QMARK_DOT,
       anon_sym_async]), (ACTIONS 1385, 28, [anon_sym_LBRACE, anon_sym_LBRACK, anon_sym_COMMA,
       anon_sym_PLUS_EQ, anon_sym_DASH_EQ, anon_sym_STAR_EQ, anon_sym_SLASH_EQ,
       anon_sym_PERCENT_EQ, anon_sym_TILDE_SLASH_EQ, anon_sym_LT_LT_EQ, anon_sym_GT_GT_EQ,
       anon_sym_GT_GT_GT_EQ, anon_sym_AMP_EQ, anon_sym_CARET_EQ, anon_sym_PIPE_EQ,
       anon_sym_QMARK_QMARK_EQ, sym_equality_operator, anon_sym_LT_EQ, anon_sym_GT_EQ,
       anon_sym_is, anon_sym_DOT_DOT, anon_sym_QMARK_DOT_DOT, anon_sym_SEMI, anon_sym_EQ_GT,
       anon_sym_async_STAR, anon_sym_sync_STAR, anon_sym_AMP_AMP, anon_sym_PIPE_PIPE])])]"

lemma small_run_50: "small_run 561 6984 ts_small_parse_table_50 562 7074"
  by (simp add: small_simps ts_small_parse_table_50_def)

definition ts_small_parse_table_51 :: "small_group list" where
  "ts_small_parse_table_51 = [
     (7074, 41, [(ACTIONS 3, 1, [anon_sym_SLASH_SLASH]), (ACTIONS 5, 1, [anon_sym_SLASH_STAR]),
       (ACTIONS 7, 1, [anon_sym_SLASH_SLASH_SLASH]), (ACTIONS 9, 1, [sym__block_comment]),
       (ACTIONS 11, 1, [sym__documentation_block_comment]), (ACTIONS 1273, 1, [anon_sym_GT_GT]),
       (ACTIONS 1275, 1, [sym__additive_operator]), (ACTIONS 1279, 1, [anon_sym_is]), (ACTIONS
       1286, 1, [anon_sym_AMP_AMP]), (ACTIONS 1288, 1, [anon_sym_PIPE_PIPE]), (ACTIONS 1436, 1,
       [anon_sym_QMARK_QMARK]), (ACTIONS 1438, 1, [anon_sym_QMARK]), (ACTIONS 1440, 1,
       [sym_equality_operator]), (ACTIONS 1442, 1, [anon_sym_PIPE]), (ACTIONS 1444, 1,
       [anon_sym_CARET]), (ACTIONS 1446, 1, [anon_sym_AMP]), (ACTIONS 1448, 1, [anon_sym_as]),
       (STATE 317, 1, [sym_relational_operator]), (STATE 319, 1, [sym_shift_operator]), (STATE
       321, 1, [sym_additive_operator]), (STATE 334, 1, [sym_logical_and_operator]), (STATE 336,
       1, [sym_logical_or_operator]), (STATE 987, 1, [aux_sym_shift_expression_repeat1]), (STATE
       1005, 1, [aux_sym_additive_expression_repeat1]), (STATE 1008, 1,
       [aux_sym_logical_and_expression_repeat1]), (STATE 1010, 1,
       [aux_sym_logical_or_expression_repeat1]), (STATE 1054, 1, [aux_sym__if_null_expression]),
       (STATE 1063, 1, [aux_sym_bitwise_xor_expression_repeat1]), (STATE 1072, 1,
       [aux_sym_bitwise_or_expression_repeat1]), (STATE 1084, 1,
       [aux_sym_bitwise_and_expression_repeat1]), (STATE 1118, 1, [sym_type_cast]), (STATE 1143,
       1, [sym_type_test]), (STATE 1397, 1, [sym__shift_operator]), (STATE 2064, 1,
       [sym_as_operator]), (STATE 2066, 1, [sym_is_operator]), (ACTIONS 400, 2, [anon_sym_LT,
       anon_sym_GT]), (ACTIONS 402, 2, [anon_sym_LT_EQ, anon_sym_GT_EQ]), (ACTIONS 1271, 2,
       [anon_sym_LT_LT, anon_sym_GT_GT_GT]), (STATE 562, 2, [sym_comment,
       sym_documentation_comment]), (ACTIONS 1397, 5, [anon_sym_SLASH, anon_sym_BANG,
       anon_sym_DOT, anon_sym_QMARK_DOT, anon_sym_async]), (ACTIONS 1395, 13, [anon_sym_LBRACE,
       anon_sym_LBRACK, anon_sym_COMMA, anon_sym_LPAREN, anon_sym_STAR, anon_sym_PERCENT,
       anon_sym_TILDE_SLASH, anon_sym_DOT_DOT, anon_sym_QMARK_DOT_DOT, anon_sym_SEMI,
       anon_sym_EQ_GT, anon_sym_async_STAR, anon_sym_sync_STAR])])]"

lemma small_run_51: "small_run 562 7074 ts_small_parse_table_51 563 7218"
  by (simp add: small_simps ts_small_parse_table_51_def)

definition ts_small_parse_table_52 :: "small_group list" where
  "ts_small_parse_table_52 = [
     (7218, 8, [(ACTIONS 3, 1, [anon_sym_SLASH_SLASH]), (ACTIONS 5, 1, [anon_sym_SLASH_STAR]),
       (ACTIONS 7, 1, [anon_sym_SLASH_SLASH_SLASH]), (ACTIONS 9, 1, [sym__block_comment]),
       (ACTIONS 11, 1, [sym__documentation_block_comment]), (STATE 563, 2, [sym_comment,
       sym_documentation_comment]), (ACTIONS 1659, 19, [anon_sym_EQ, anon_sym_QMARK_QMARK,
       anon_sym_QMARK, anon_sym_LT, anon_sym_GT, anon_sym_PIPE, anon_sym_CARET, anon_sym_AMP,
       anon_sym_LT_LT, anon_sym_GT_GT, anon_sym_GT_GT_GT, sym__additive_operator, anon_sym_STAR,
       anon_sym_SLASH, anon_sym_PERCENT, anon_sym_TILDE_SLASH, anon_sym_BANG, anon_sym_DOT,
       anon_sym_QMARK_DOT]), (ACTIONS 1657, 35, [anon_sym_RBRACE, anon_sym_LBRACK,
       anon_sym_COMMA, anon_sym_RBRACK, anon_sym_COLON, anon_sym_LPAREN, anon_sym_RPAREN,
       anon_sym_PLUS_EQ, anon_sym_DASH_EQ, anon_sym_STAR_EQ, anon_sym_SLASH_EQ,
       anon_sym_PERCENT_EQ, anon_sym_TILDE_SLASH_EQ, anon_sym_LT_LT_EQ, anon_sym_GT_GT_EQ,
       anon_sym_GT_GT_GT_EQ, anon_sym_AMP_EQ, anon_sym_CARET_EQ, anon_sym_PIPE_EQ,
       anon_sym_QMARK_QMARK_EQ, sym_equality_operator, anon_sym_LT_EQ, anon_sym_GT_EQ,
       sym_increment_operator, anon_sym_is, anon_sym_as, anon_sym_DOT_DOT,
       anon_sym_QMARK_DOT_DOT, anon_sym_SEMI, anon_sym_EQ_GT, anon_sym_when, anon_sym_case,
       anon_sym_else, anon_sym_AMP_AMP, anon_sym_PIPE_PIPE])])]"

lemma small_run_52: "small_run 563 7218 ts_small_parse_table_52 564 7296"
  by (simp add: small_simps ts_small_parse_table_52_def)

definition ts_small_parse_table_53 :: "small_group list" where
  "ts_small_parse_table_53 = [
     (7296, 41, [(ACTIONS 3, 1, [anon_sym_SLASH_SLASH]), (ACTIONS 5, 1, [anon_sym_SLASH_STAR]),
       (ACTIONS 7, 1, [anon_sym_SLASH_SLASH_SLASH]), (ACTIONS 9, 1, [sym__block_comment]),
       (ACTIONS 11, 1, [sym__documentation_block_comment]), (ACTIONS 1273, 1, [anon_sym_GT_GT]),
       (ACTIONS 1275, 1, [sym__additive_operator]), (ACTIONS 1279, 1, [anon_sym_is]), (ACTIONS
       1286, 1, [anon_sym_AMP_AMP]), (ACTIONS 1288, 1, [anon_sym_PIPE_PIPE]), (ACTIONS 1436, 1,
       [anon_sym_QMARK_QMARK]), (ACTIONS 1438, 1, [anon_sym_QMARK]), (ACTIONS 1440, 1,
       [sym_equality_operator]), (ACTIONS 1442, 1, [anon_sym_PIPE]), (ACTIONS 1444, 1,
       [anon_sym_CARET]), (ACTIONS 1446, 1, [anon_sym_AMP]), (ACTIONS 1448, 1, [anon_sym_as]),
       (STATE 317, 1, [sym_relational_operator]), (STATE 319, 1, [sym_shift_operator]), (STATE
       321, 1, [sym_additive_operator]), (STATE 334, 1, [sym_logical_and_operator]), (STATE 336,
       1, [sym_logical_or_operator]), (STATE 987, 1, [aux_sym_shift_expression_repeat1]), (STATE
       1005, 1, [aux_sym_additive_expression_repeat1]), (STATE 1008, 1,
       [aux_sym_logical_and_expression_repeat1]), (STATE 1010, 1,
       [aux_sym_logical_or_expression_repeat1]), (STATE 1054, 1, [aux_sym__if_null_expression]),
       (STATE 1063, 1, [aux_sym_bitwise_xor_expression_repeat1]), (STATE 1072, 1,
       [aux_sym_bitwise_or_expression_repeat1]), (STATE 1084, 1,
       [aux_sym_bitwise_and_expression_repeat1]), (STATE 1118, 1, [sym_type_cast]), (STATE 1143,
       1, [sym_type_test]), (STATE 1397, 1, [sym__shift_operator]), (STATE 2064, 1,
       [sym_as_operator]), (STATE 2066, 1, [sym_is_operator]), (ACTIONS 400, 2, [anon_sym_LT,
       anon_sym_GT]), (ACTIONS 402, 2, [anon_sym_LT_EQ, anon_sym_GT_EQ]), (ACTIONS 1271, 2,
       [anon_sym_LT_LT, anon_sym_GT_GT_GT]), (STATE 564, 2, [sym_comment,
       sym_documentation_comment]), (ACTIONS 1383, 5, [anon_sym_SLASH, anon_sym_BANG,
       anon_sym_DOT, anon_sym_QMARK_DOT, anon_sym_async]), (ACTIONS 1381, 13, [anon_sym_LBRACE,
       anon_sym_LBRACK, anon_sym_COMMA, anon_sym_LPAREN, anon_sym_STAR, anon_sym_PERCENT,
       anon_sym_TILDE_SLASH, anon_sym_DOT_DOT, anon_sym_QMARK_DOT_DOT, anon_sym_SEMI,
       anon_sym_EQ_GT, anon_sym_async_STAR, anon_sym_sync_STAR])])]"

lemma small_run_53: "small_run 564 7296 ts_small_parse_table_53 565 7440"
  by (simp add: small_simps ts_small_parse_table_53_def)

definition ts_small_parse_table_54 :: "small_group list" where
  "ts_small_parse_table_54 = [
     (7440, 8, [(ACTIONS 3, 1, [anon_sym_SLASH_SLASH]), (ACTIONS 5, 1, [anon_sym_SLASH_STAR]),
       (ACTIONS 7, 1, [anon_sym_SLASH_SLASH_SLASH]), (ACTIONS 9, 1, [sym__block_comment]),
       (ACTIONS 11, 1, [sym__documentation_block_comment]), (STATE 565, 2, [sym_comment,
       sym_documentation_comment]), (ACTIONS 1663, 19, [anon_sym_EQ, anon_sym_QMARK_QMARK,
       anon_sym_QMARK, anon_sym_LT, anon_sym_GT, anon_sym_PIPE, anon_sym_CARET, anon_sym_AMP,
       anon_sym_LT_LT, anon_sym_GT_GT, anon_sym_GT_GT_GT, sym__additive_operator, anon_sym_STAR,
       anon_sym_SLASH, anon_sym_PERCENT, anon_sym_TILDE_SLASH, anon_sym_BANG, anon_sym_DOT,
       anon_sym_QMARK_DOT]), (ACTIONS 1661, 35, [anon_sym_RBRACE, anon_sym_LBRACK,
       anon_sym_COMMA, anon_sym_RBRACK, anon_sym_COLON, anon_sym_LPAREN, anon_sym_RPAREN,
       anon_sym_PLUS_EQ, anon_sym_DASH_EQ, anon_sym_STAR_EQ, anon_sym_SLASH_EQ,
       anon_sym_PERCENT_EQ, anon_sym_TILDE_SLASH_EQ, anon_sym_LT_LT_EQ, anon_sym_GT_GT_EQ,
       anon_sym_GT_GT_GT_EQ, anon_sym_AMP_EQ, anon_sym_CARET_EQ, anon_sym_PIPE_EQ,
       anon_sym_QMARK_QMARK_EQ, sym_equality_operator, anon_sym_LT_EQ, anon_sym_GT_EQ,
       sym_increment_operator, anon_sym_is, anon_sym_as, anon_sym_DOT_DOT,
       anon_sym_QMARK_DOT_DOT, anon_sym_SEMI, anon_sym_EQ_GT, anon_sym_when, anon_sym_case,
       anon_sym_else, anon_sym_AMP_AMP, anon_sym_PIPE_PIPE])]),
     (7518, 13, [(ACTIONS 3, 1, [anon_sym_SLASH_SLASH]), (ACTIONS 5, 1, [anon_sym_SLASH_STAR]),
       (ACTIONS 7, 1, [anon_sym_SLASH_SLASH_SLASH]), (ACTIONS 9, 1, [sym__block_comment]),
       (ACTIONS 11, 1, [sym__documentation_block_comment]), (ACTIONS 1368, 1, [anon_sym_LT]),
       (ACTIONS 1665, 1, [anon_sym_LPAREN]), (STATE 650, 1, [sym_argument_part]), (STATE 653, 1,
       [sym_arguments]), (STATE 3126, 1, [sym_type_arguments]), (STATE 566, 3, [sym_comment,
       sym_documentation_comment, aux_sym_cascade_section_repeat1]), (ACTIONS 1366, 20,
       [anon_sym_EQ, anon_sym_QMARK_QMARK, anon_sym_QMARK, anon_sym_GT, anon_sym_PIPE,
       anon_sym_CARET, anon_sym_AMP, anon_sym_LT_LT, anon_sym_GT_GT, anon_sym_GT_GT_GT,
       sym__additive_operator, anon_sym_STAR, anon_sym_SLASH, anon_sym_PERCENT,
       anon_sym_TILDE_SLASH, anon_sym_BANG, anon_sym_as, anon_sym_DOT, anon_sym_QMARK_DOT,
       anon_sym_async]), (ACTIONS 1361, 28, [anon_sym_LBRACE, anon_sym_LBRACK, anon_sym_COMMA,
       anon_sym_PLUS_EQ, anon_sym_DASH_EQ, anon_sym_STAR_EQ, anon_sym_SLASH_EQ,
       anon_sym_PERCENT_EQ, anon_sym_TILDE_SLASH_EQ, anon_sym_LT_LT_EQ, anon_sym_GT_GT_EQ,
       anon_sym_GT_GT_GT_EQ, anon_sym_AMP_EQ, anon_sym_CARET_EQ, anon_sym_PIPE_EQ,
       anon_sym_QMARK_QMARK_EQ, sym_equality_operator, anon_sym_LT_EQ, anon_sym_GT_EQ,
       anon_sym_is, anon_sym_DOT_DOT, anon_sym_QMARK_DOT_DOT, anon_sym_SEMI, anon_sym_EQ_GT,
       anon_sym_async_STAR, anon_sym_sync_STAR, anon_sym_AMP_AMP, anon_sym_PIPE_PIPE])])]"

lemma small_run_54: "small_run 565 7440 ts_small_parse_table_54 567 7606"
  by (simp add: small_simps ts_small_parse_table_54_def)

definition ts_small_parse_table_55 :: "small_group list" where
  "ts_small_parse_table_55 = [
     (7606, 8, [(ACTIONS 3, 1, [anon_sym_SLASH_SLASH]), (ACTIONS 5, 1, [anon_sym_SLASH_STAR]),
       (ACTIONS 7, 1, [anon_sym_SLASH_SLASH_SLASH]), (ACTIONS 9, 1, [sym__block_comment]),
       (ACTIONS 11, 1, [sym__documentation_block_comment]), (STATE 567, 2, [sym_comment,
       sym_documentation_comment]), (ACTIONS 1670, 19, [anon_sym_EQ, anon_sym_QMARK_QMARK,
       anon_sym_QMARK, anon_sym_LT, anon_sym_GT, anon_sym_PIPE, anon_sym_CARET, anon_sym_AMP,
       anon_sym_LT_LT, anon_sym_GT_GT, anon_sym_GT_GT_GT, sym__additive_operator, anon_sym_STAR,
       anon_sym_SLASH, anon_sym_PERCENT, anon_sym_TILDE_SLASH, anon_sym_BANG, anon_sym_DOT,
       anon_sym_QMARK_DOT]), (ACTIONS 1668, 35, [anon_sym_RBRACE, anon_sym_LBRACK,
       anon_sym_COMMA, anon_sym_RBRACK, anon_sym_COLON, anon_sym_LPAREN, anon_sym_RPAREN,
       anon_sym_PLUS_EQ, anon_sym_DASH_EQ, anon_sym_STAR_EQ, anon_sym_SLASH_EQ,
       anon_sym_PERCENT_EQ, anon_sym_TILDE_SLASH_EQ, anon_sym_LT_LT_EQ, anon_sym_GT_GT_EQ,
       anon_sym_GT_GT_GT_EQ, anon_sym_AMP_EQ, anon_sym_CARET_EQ, anon_sym_PIPE_EQ,
       anon_sym_QMARK_QMARK_EQ, sym_equality_operator, anon_sym_LT_EQ, anon_sym_GT_EQ,
       sym_increment_operator, anon_sym_is, anon_sym_as, anon_sym_DOT_DOT,
       anon_sym_QMARK_DOT_DOT, anon_sym_SEMI, anon_sym_EQ_GT, anon_sym_when, anon_sym_case,
       anon_sym_else, anon_sym_AMP_AMP, anon_sym_PIPE_PIPE])]),
     (7684, 10, [(ACTIONS 3, 1, [anon_sym_SLASH_SLASH]), (ACTIONS 5, 1, [anon_sym_SLASH_STAR]),
       (ACTIONS 7, 1, [anon_sym_SLASH_SLASH_SLASH]), (ACTIONS 9, 1, [sym__block_comment]),
       (ACTIONS 11, 1, [sym__documentation_block_comment]), (ACTIONS 1674, 1, [anon_sym_EQ]),
       (STATE 568, 2, [sym_comment, sym_documentation_comment]), (ACTIONS 1676, 14,
       [anon_sym_PLUS_EQ, anon_sym_DASH_EQ, anon_sym_STAR_EQ, anon_sym_SLASH_EQ,
       anon_sym_PERCENT_EQ, anon_sym_TILDE_SLASH_EQ, anon_sym_LT_LT_EQ, anon_sym_GT_GT_EQ,
       anon_sym_GT_GT_GT_EQ, anon_sym_AMP_EQ, anon_sym_CARET_EQ, anon_sym_PIPE_EQ,
       anon_sym_QMARK_QMARK_EQ, sym_increment_operator]), (ACTIONS 1678, 18,
       [anon_sym_QMARK_QMARK, anon_sym_QMARK, anon_sym_LT, anon_sym_GT, anon_sym_PIPE,
       anon_sym_CARET, anon_sym_AMP, anon_sym_LT_LT, anon_sym_GT_GT, anon_sym_GT_GT_GT,
       sym__additive_operator, anon_sym_STAR, anon_sym_SLASH, anon_sym_PERCENT,
       anon_sym_TILDE_SLASH, anon_sym_BANG, anon_sym_DOT, anon_sym_QMARK_DOT]), (ACTIONS 1672,
       21, [anon_sym_RBRACE, anon_sym_LBRACK, anon_sym_COMMA, anon_sym_RBRACK, anon_sym_COLON,
       anon_sym_LPAREN, anon_sym_RPAREN, sym_equality_operator, anon_sym_LT_EQ, anon_sym_GT_EQ,
       anon_sym_is, anon_sym_as, anon_sym_DOT_DOT, anon_sym_QMARK_DOT_DOT, anon_sym_SEMI,
       anon_sym_EQ_GT, anon_sym_when, anon_sym_case, anon_sym_else, anon_sym_AMP_AMP,
       anon_sym_PIPE_PIPE])])]"

lemma small_run_55: "small_run 567 7606 ts_small_parse_table_55 569 7766"
  by (simp add: small_simps ts_small_parse_table_55_def)

definition ts_small_parse_table_56 :: "small_group list" where
  "ts_small_parse_table_56 = [
     (7766, 41, [(ACTIONS 3, 1, [anon_sym_SLASH_SLASH]), (ACTIONS 5, 1, [anon_sym_SLASH_STAR]),
       (ACTIONS 7, 1, [anon_sym_SLASH_SLASH_SLASH]), (ACTIONS 9, 1, [sym__block_comment]),
       (ACTIONS 11, 1, [sym__documentation_block_comment]), (ACTIONS 1273, 1, [anon_sym_GT_GT]),
       (ACTIONS 1275, 1, [sym__additive_operator]), (ACTIONS 1279, 1, [anon_sym_is]), (ACTIONS
       1286, 1, [anon_sym_AMP_AMP]), (ACTIONS 1288, 1, [anon_sym_PIPE_PIPE]), (ACTIONS 1436, 1,
       [anon_sym_QMARK_QMARK]), (ACTIONS 1438, 1, [anon_sym_QMARK]), (ACTIONS 1440, 1,
       [sym_equality_operator]), (ACTIONS 1442, 1, [anon_sym_PIPE]), (ACTIONS 1444, 1,
       [anon_sym_CARET]), (ACTIONS 1446, 1, [anon_sym_AMP]), (ACTIONS 1448, 1, [anon_sym_as]),
       (STATE 317, 1, [sym_relational_operator]), (STATE 319, 1, [sym_shift_operator]), (STATE
       321, 1, [sym_additive_operator]), (STATE 334, 1, [sym_logical_and_operator]), (STATE 336,
       1, [sym_logical_or_operator]), (STATE 987, 1, [aux_sym_shift_expression_repeat1]), (STATE
       1005, 1, [aux_sym_additive_expression_repeat1]), (STATE 1008, 1,
       [aux_sym_logical_and_expression_repeat1]), (STATE 1010, 1,
       [aux_sym_logical_or_expression_repeat1]), (STATE 1054, 1, [aux_sym__if_null_expression]),
       (STATE 1063, 1, [aux_sym_bitwise_xor_expression_repeat1]), (STATE 1072, 1,
       [aux_sym_bitwise_or_expression_repeat1]), (STATE 1084, 1,
       [aux_sym_bitwise_and_expression_repeat1]), (STATE 1118, 1, [sym_type_cast]), (STATE 1143,
       1, [sym_type_test]), (STATE 1397, 1, [sym__shift_operator]), (STATE 2064, 1,
       [sym_as_operator]), (STATE 2066, 1, [sym_is_operator]), (ACTIONS 400, 2, [anon_sym_LT,
       anon_sym_GT]), (ACTIONS 402, 2, [anon_sym_LT_EQ, anon_sym_GT_EQ]), (ACTIONS 1271, 2,
       [anon_sym_LT_LT, anon_sym_GT_GT_GT]), (STATE 569, 2, [sym_comment,
       sym_documentation_comment]), (ACTIONS 1408, 5, [anon_sym_SLASH, anon_sym_BANG,
       anon_sym_DOT, anon_sym_QMARK_DOT, anon_sym_async]), (ACTIONS 1406, 13, [anon_sym_LBRACE,
       anon_sym_LBRACK, anon_sym_COMMA, anon_sym_LPAREN, anon_sym_STAR, anon_sym_PERCENT,
       anon_sym_TILDE_SLASH, anon_sym_DOT_DOT, anon_sym_QMARK_DOT_DOT, anon_sym_SEMI,
       anon_sym_EQ_GT, anon_sym_async_STAR, anon_sym_sync_STAR])])]"

lemma small_run_56: "small_run 569 7766 ts_small_parse_table_56 570 7910"
  by (simp add: small_simps ts_small_parse_table_56_def)

definition ts_small_parse_table_57 :: "small_group list" where
  "ts_small_parse_table_57 = [
     (7910, 10, [(ACTIONS 3, 1, [anon_sym_SLASH_SLASH]), (ACTIONS 5, 1, [anon_sym_SLASH_STAR]),
       (ACTIONS 7, 1, [anon_sym_SLASH_SLASH_SLASH]), (ACTIONS 9, 1, [sym__block_comment]),
       (ACTIONS 11, 1, [sym__documentation_block_comment]), (ACTIONS 1682, 1, [anon_sym_EQ]),
       (STATE 570, 2, [sym_comment, sym_documentation_comment]), (ACTIONS 1684, 14,
       [anon_sym_PLUS_EQ, anon_sym_DASH_EQ, anon_sym_STAR_EQ, anon_sym_SLASH_EQ,
       anon_sym_PERCENT_EQ, anon_sym_TILDE_SLASH_EQ, anon_sym_LT_LT_EQ, anon_sym_GT_GT_EQ,
       anon_sym_GT_GT_GT_EQ, anon_sym_AMP_EQ, anon_sym_CARET_EQ, anon_sym_PIPE_EQ,
       anon_sym_QMARK_QMARK_EQ, sym_increment_operator]), (ACTIONS 1686, 18,
       [anon_sym_QMARK_QMARK, anon_sym_QMARK, anon_sym_LT, anon_sym_GT, anon_sym_PIPE,
       anon_sym_CARET, anon_sym_AMP, anon_sym_LT_LT, anon_sym_GT_GT, anon_sym_GT_GT_GT,
       sym__additive_operator, anon_sym_STAR, anon_sym_SLASH, anon_sym_PERCENT,
       anon_sym_TILDE_SLASH, anon_sym_BANG, anon_sym_DOT, anon_sym_QMARK_DOT]), (ACTIONS 1680,
       21, [anon_sym_RBRACE, anon_sym_LBRACK, anon_sym_COMMA, anon_sym_RBRACK, anon_sym_COLON,
       anon_sym_LPAREN, anon_sym_RPAREN, sym_equality_operator, anon_sym_LT_EQ, anon_sym_GT_EQ,
       anon_sym_is, anon_sym_as, anon_sym_DOT_DOT, anon_sym_QMARK_DOT_DOT, anon_sym_SEMI,
       anon_sym_EQ_GT, anon_sym_when, anon_sym_case, anon_sym_else, anon_sym_AMP_AMP,
       anon_sym_PIPE_PIPE])]),
     (7992, 8, [(ACTIONS 3, 1, [anon_sym_SLASH_SLASH]), (ACTIONS 5, 1, [anon_sym_SLASH_STAR]),
       (ACTIONS 7, 1, [anon_sym_SLASH_SLASH_SLASH]), (ACTIONS 9, 1, [sym__block_comment]),
       (ACTIONS 11, 1, [sym__documentation_block_comment]), (STATE 571, 2, [sym_comment,
       sym_documentation_comment]), (ACTIONS 1690, 15, [anon_sym_POUND, sym_hex_integer_literal,
       anon_sym_DQUOTE_DQUOTE_DQUOTE, anon_sym_SQUOTE_SQUOTE_SQUOTE,
       anon_sym_r_DQUOTE_DQUOTE_DQUOTE, anon_sym_r_SQUOTE_SQUOTE_SQUOTE, anon_sym_LBRACE,
       anon_sym_LBRACK, anon_sym_LPAREN, anon_sym_LT, sym_increment_operator, anon_sym_BANG,
       anon_sym_TILDE, anon_sym_QMARK_DOT, anon_sym_AT]), (ACTIONS 1688, 39,
       [sym_decimal_integer_literal, sym_decimal_floating_point_literal, anon_sym_true,
       anon_sym_false, anon_sym_DQUOTE, anon_sym_SQUOTE, anon_sym_r_DQUOTE, anon_sym_r_SQUOTE,
       anon_sym_null, anon_sym_throw, anon_sym_QMARK, sym_minus_operator, anon_sym_await,
       anon_sym_DOT, anon_sym_switch, anon_sym_do, anon_sym_while, anon_sym_continue,
       anon_sym_yield, anon_sym_return, anon_sym_try, anon_sym_if, anon_sym_for, anon_sym_final,
       sym_void_type, anon_sym_var, sym_break_builtin, sym_assert_builtin, sym_rethrow_builtin,
       anon_sym_covariant, anon_sym_Function, anon_sym_get, anon_sym_set, anon_sym_new,
       sym_const_builtin, anon_sym_late, anon_sym_this, anon_sym_super, sym_identifier])])]"

lemma small_run_57: "small_run 570 7910 ts_small_parse_table_57 572 8070"
  by (simp add: small_simps ts_small_parse_table_57_def)

definition ts_small_parse_table_58 :: "small_group list" where
  "ts_small_parse_table_58 = [
     (8070, 36, [(ACTIONS 3, 1, [anon_sym_SLASH_SLASH]), (ACTIONS 5, 1, [anon_sym_SLASH_STAR]),
       (ACTIONS 7, 1, [anon_sym_SLASH_SLASH_SLASH]), (ACTIONS 9, 1, [sym__block_comment]),
       (ACTIONS 11, 1, [sym__documentation_block_comment]), (ACTIONS 1273, 1, [anon_sym_GT_GT]),
       (ACTIONS 1275, 1, [sym__additive_operator]), (ACTIONS 1279, 1, [anon_sym_is]), (ACTIONS
       1442, 1, [anon_sym_PIPE]), (ACTIONS 1444, 1, [anon_sym_CARET]), (ACTIONS 1446, 1,
       [anon_sym_AMP]), (ACTIONS 1448, 1, [anon_sym_as]), (STATE 317, 1,
       [sym_relational_operator]), (STATE 319, 1, [sym_shift_operator]), (STATE 321, 1,
       [sym_additive_operator]), (STATE 334, 1, [sym_logical_and_operator]), (STATE 336, 1,
       [sym_logical_or_operator]), (STATE 987, 1, [aux_sym_shift_expression_repeat1]), (STATE
       1005, 1, [aux_sym_additive_expression_repeat1]), (STATE 1008, 1,
       [aux_sym_logical_and_expression_repeat1]), (STATE 1010, 1,
       [aux_sym_logical_or_expression_repeat1]), (STATE 1054, 1, [aux_sym__if_null_expression]),
       (STATE 1063, 1, [aux_sym_bitwise_xor_expression_repeat1]), (STATE 1072, 1,
       [aux_sym_bitwise_or_expression_repeat1]), (STATE 1084, 1,
       [aux_sym_bitwise_and_expression_repeat1]), (STATE 1118, 1, [sym_type_cast]), (STATE 1143,
       1, [sym_type_test]), (STATE 1397, 1, [sym__shift_operator]), (STATE 2064, 1,
       [sym_as_operator]), (STATE 2066, 1, [sym_is_operator]), (ACTIONS 1271, 2, [anon_sym_LT_LT,
       anon_sym_GT_GT_GT]), (ACTIONS 1426, 2, [anon_sym_LT, anon_sym_GT]), (ACTIONS 1429, 2,
       [anon_sym_LT_EQ, anon_sym_GT_EQ]), (STATE 572, 2, [sym_comment,
       sym_documentation_comment]), (ACTIONS 1424, 6, [anon_sym_QMARK, anon_sym_SLASH,
       anon_sym_BANG, anon_sym_DOT, anon_sym_QMARK_DOT, anon_sym_async]), (ACTIONS 1422, 17,
       [anon_sym_LBRACE, anon_sym_LBRACK, anon_sym_COMMA, anon_sym_LPAREN, anon_sym_QMARK_QMARK,
       sym_equality_operator, anon_sym_STAR, anon_sym_PERCENT, anon_sym_TILDE_SLASH,
       anon_sym_DOT_DOT, anon_sym_QMARK_DOT_DOT, anon_sym_SEMI, anon_sym_EQ_GT,
       anon_sym_async_STAR, anon_sym_sync_STAR, anon_sym_AMP_AMP, anon_sym_PIPE_PIPE])])]"

lemma small_run_58: "small_run 572 8070 ts_small_parse_table_58 573 8204"
  by (simp add: small_simps ts_small_parse_table_58_def)

definition ts_small_parse_table_59 :: "small_group list" where
  "ts_small_parse_table_59 = [
     (8204, 14, [(ACTIONS 3, 1, [anon_sym_SLASH_SLASH]), (ACTIONS 5, 1, [anon_sym_SLASH_STAR]),
       (ACTIONS 7, 1, [anon_sym_SLASH_SLASH_SLASH]), (ACTIONS 9, 1, [sym__block_comment]),
       (ACTIONS 11, 1, [sym__documentation_block_comment]), (ACTIONS 1378, 1, [anon_sym_LT]),
       (ACTIONS 1692, 1, [anon_sym_LPAREN]), (STATE 566, 1, [aux_sym_cascade_section_repeat1]),
       (STATE 650, 1, [sym_argument_part]), (STATE 653, 1, [sym_arguments]), (STATE 3126, 1,
       [sym_type_arguments]), (STATE 573, 2, [sym_comment, sym_documentation_comment]), (ACTIONS
       1376, 20, [anon_sym_EQ, anon_sym_QMARK_QMARK, anon_sym_QMARK, anon_sym_GT, anon_sym_PIPE,
       anon_sym_CARET, anon_sym_AMP, anon_sym_LT_LT, anon_sym_GT_GT, anon_sym_GT_GT_GT,
       sym__additive_operator, anon_sym_STAR, anon_sym_SLASH, anon_sym_PERCENT,
       anon_sym_TILDE_SLASH, anon_sym_BANG, anon_sym_as, anon_sym_DOT, anon_sym_QMARK_DOT,
       anon_sym_async]), (ACTIONS 1371, 28, [anon_sym_LBRACE, anon_sym_LBRACK, anon_sym_COMMA,
       anon_sym_PLUS_EQ, anon_sym_DASH_EQ, anon_sym_STAR_EQ, anon_sym_SLASH_EQ,
       anon_sym_PERCENT_EQ, anon_sym_TILDE_SLASH_EQ, anon_sym_LT_LT_EQ, anon_sym_GT_GT_EQ,
       anon_sym_GT_GT_GT_EQ, anon_sym_AMP_EQ, anon_sym_CARET_EQ, anon_sym_PIPE_EQ,
       anon_sym_QMARK_QMARK_EQ, sym_equality_operator, anon_sym_LT_EQ, anon_sym_GT_EQ,
       anon_sym_is, anon_sym_DOT_DOT, anon_sym_QMARK_DOT_DOT, anon_sym_SEMI, anon_sym_EQ_GT,
       anon_sym_async_STAR, anon_sym_sync_STAR, anon_sym_AMP_AMP, anon_sym_PIPE_PIPE])])]"

lemma small_run_59: "small_run 573 8204 ts_small_parse_table_59 574 8294"
  by (simp add: small_simps ts_small_parse_table_59_def)

definition ts_small_parse_table_60 :: "small_group list" where
  "ts_small_parse_table_60 = [
     (8294, 41, [(ACTIONS 3, 1, [anon_sym_SLASH_SLASH]), (ACTIONS 5, 1, [anon_sym_SLASH_STAR]),
       (ACTIONS 7, 1, [anon_sym_SLASH_SLASH_SLASH]), (ACTIONS 9, 1, [sym__block_comment]),
       (ACTIONS 11, 1, [sym__documentation_block_comment]), (ACTIONS 1273, 1, [anon_sym_GT_GT]),
       (ACTIONS 1275, 1, [sym__additive_operator]), (ACTIONS 1279, 1, [anon_sym_is]), (ACTIONS
       1286, 1, [anon_sym_AMP_AMP]), (ACTIONS 1288, 1, [anon_sym_PIPE_PIPE]), (ACTIONS 1436, 1,
       [anon_sym_QMARK_QMARK]), (ACTIONS 1438, 1, [anon_sym_QMARK]), (ACTIONS 1440, 1,
       [sym_equality_operator]), (ACTIONS 1442, 1, [anon_sym_PIPE]), (ACTIONS 1444, 1,
       [anon_sym_CARET]), (ACTIONS 1446, 1, [anon_sym_AMP]), (ACTIONS 1448, 1, [anon_sym_as]),
       (STATE 317, 1, [sym_relational_operator]), (STATE 319, 1, [sym_shift_operator]), (STATE
       321, 1, [sym_additive_operator]), (STATE 334, 1, [sym_logical_and_operator]), (STATE 336,
       1, [sym_logical_or_operator]), (STATE 987, 1, [aux_sym_shift_expression_repeat1]), (STATE
       1005, 1, [aux_sym_additive_expression_repeat1]), (STATE 1008, 1,
       [aux_sym_logical_and_expression_repeat1]), (STATE 1010, 1,
       [aux_sym_logical_or_expression_repeat1]), (STATE 1054, 1, [aux_sym__if_null_expression]),
       (STATE 1063, 1, [aux_sym_bitwise_xor_expression_repeat1]), (STATE 1072, 1,
       [aux_sym_bitwise_or_expression_repeat1]), (STATE 1084, 1,
       [aux_sym_bitwise_and_expression_repeat1]), (STATE 1118, 1, [sym_type_cast]), (STATE 1143,
       1, [sym_type_test]), (STATE 1397, 1, [sym__shift_operator]), (STATE 2064, 1,
       [sym_as_operator]), (STATE 2066, 1, [sym_is_operator]), (ACTIONS 400, 2, [anon_sym_LT,
       anon_sym_GT]), (ACTIONS 402, 2, [anon_sym_LT_EQ, anon_sym_GT_EQ]), (ACTIONS 1271, 2,
       [anon_sym_LT_LT, anon_sym_GT_GT_GT]), (STATE 574, 2, [sym_comment,
       sym_documentation_comment]), (ACTIONS 1355, 5, [anon_sym_SLASH, anon_sym_BANG,
       anon_sym_DOT, anon_sym_QMARK_DOT, anon_sym_async]), (ACTIONS 1353, 13, [anon_sym_LBRACE,
       anon_sym_LBRACK, anon_sym_COMMA, anon_sym_LPAREN, anon_sym_STAR, anon_sym_PERCENT,
       anon_sym_TILDE_SLASH, anon_sym_DOT_DOT, anon_sym_QMARK_DOT_DOT, anon_sym_SEMI,
       anon_sym_EQ_GT, anon_sym_async_STAR, anon_sym_sync_STAR])])]"

lemma small_run_60: "small_run 574 8294 ts_small_parse_table_60 575 8438"
  by (simp add: small_simps ts_small_parse_table_60_def)

definition ts_small_parse_table_61 :: "small_group list" where
  "ts_small_parse_table_61 = [
     (8438, 8, [(ACTIONS 3, 1, [anon_sym_SLASH_SLASH]), (ACTIONS 5, 1, [anon_sym_SLASH_STAR]),
       (ACTIONS 7, 1, [anon_sym_SLASH_SLASH_SLASH]), (ACTIONS 9, 1, [sym__block_comment]),
       (ACTIONS 11, 1, [sym__documentation_block_comment]), (STATE 575, 2, [sym_comment,
       sym_documentation_comment]), (ACTIONS 1697, 19, [anon_sym_EQ, anon_sym_QMARK_QMARK,
       anon_sym_QMARK, anon_sym_LT, anon_sym_GT, anon_sym_PIPE, anon_sym_CARET, anon_sym_AMP,
       anon_sym_LT_LT, anon_sym_GT_GT, anon_sym_GT_GT_GT, sym__additive_operator, anon_sym_STAR,
       anon_sym_SLASH, anon_sym_PERCENT, anon_sym_TILDE_SLASH, anon_sym_BANG, anon_sym_DOT,
       anon_sym_QMARK_DOT]), (ACTIONS 1695, 35, [anon_sym_RBRACE, anon_sym_LBRACK,
       anon_sym_COMMA, anon_sym_RBRACK, anon_sym_COLON, anon_sym_LPAREN, anon_sym_RPAREN,
       anon_sym_PLUS_EQ, anon_sym_DASH_EQ, anon_sym_STAR_EQ, anon_sym_SLASH_EQ,
       anon_sym_PERCENT_EQ, anon_sym_TILDE_SLASH_EQ, anon_sym_LT_LT_EQ, anon_sym_GT_GT_EQ,
       anon_sym_GT_GT_GT_EQ, anon_sym_AMP_EQ, anon_sym_CARET_EQ, anon_sym_PIPE_EQ,
       anon_sym_QMARK_QMARK_EQ, sym_equality_operator, anon_sym_LT_EQ, anon_sym_GT_EQ,
       sym_increment_operator, anon_sym_is, anon_sym_as, anon_sym_DOT_DOT,
       anon_sym_QMARK_DOT_DOT, anon_sym_SEMI, anon_sym_EQ_GT, anon_sym_when, anon_sym_case,
       anon_sym_else, anon_sym_AMP_AMP, anon_sym_PIPE_PIPE])]),
     (8516, 10, [(ACTIONS 3, 1, [anon_sym_SLASH_SLASH]), (ACTIONS 5, 1, [anon_sym_SLASH_STAR]),
       (ACTIONS 7, 1, [anon_sym_SLASH_SLASH_SLASH]), (ACTIONS 9, 1, [sym__block_comment]),
       (ACTIONS 11, 1, [sym__documentation_block_comment]), (ACTIONS 1699, 1, [anon_sym_EQ]),
       (STATE 576, 2, [sym_comment, sym_documentation_comment]), (ACTIONS 1701, 14,
       [anon_sym_PLUS_EQ, anon_sym_DASH_EQ, anon_sym_STAR_EQ, anon_sym_SLASH_EQ,
       anon_sym_PERCENT_EQ, anon_sym_TILDE_SLASH_EQ, anon_sym_LT_LT_EQ, anon_sym_GT_GT_EQ,
       anon_sym_GT_GT_GT_EQ, anon_sym_AMP_EQ, anon_sym_CARET_EQ, anon_sym_PIPE_EQ,
       anon_sym_QMARK_QMARK_EQ, sym_increment_operator]), (ACTIONS 1686, 18,
       [anon_sym_QMARK_QMARK, anon_sym_QMARK, anon_sym_LT, anon_sym_GT, anon_sym_PIPE,
       anon_sym_CARET, anon_sym_AMP, anon_sym_LT_LT, anon_sym_GT_GT, anon_sym_GT_GT_GT,
       sym__additive_operator, anon_sym_STAR, anon_sym_SLASH, anon_sym_PERCENT,
       anon_sym_TILDE_SLASH, anon_sym_BANG, anon_sym_DOT, anon_sym_QMARK_DOT]), (ACTIONS 1680,
       21, [anon_sym_RBRACE, anon_sym_LBRACK, anon_sym_COMMA, anon_sym_RBRACK, anon_sym_COLON,
       anon_sym_LPAREN, anon_sym_RPAREN, sym_equality_operator, anon_sym_LT_EQ, anon_sym_GT_EQ,
       anon_sym_is, anon_sym_as, anon_sym_DOT_DOT, anon_sym_QMARK_DOT_DOT, anon_sym_SEMI,
       anon_sym_EQ_GT, anon_sym_when, anon_sym_case, anon_sym_else, anon_sym_AMP_AMP,
       anon_sym_PIPE_PIPE])])]"

lemma small_run_61: "small_run 575 8438 ts_small_parse_table_61 577 8598"
  by (simp add: small_simps ts_small_parse_table_61_def)

definition ts_small_parse_table_62 :: "small_group list" where
  "ts_small_parse_table_62 = [
     (8598, 56, [(ACTIONS 3, 1, [anon_sym_SLASH_SLASH]), (ACTIONS 5, 1, [anon_sym_SLASH_STAR]),
       (ACTIONS 7, 1, [anon_sym_SLASH_SLASH_SLASH]), (ACTIONS 9, 1, [sym__block_comment]),
       (ACTIONS 11, 1, [sym__documentation_block_comment]), (ACTIONS 17, 1, [anon_sym_LPAREN]),
       (ACTIONS 33, 1, [sym_void_type]), (ACTIONS 35, 1, [anon_sym_var]), (ACTIONS 45, 1,
       [anon_sym_Function]), (ACTIONS 47, 1, [anon_sym_get]), (ACTIONS 61, 1, [anon_sym_set]),
       (ACTIONS 67, 1, [anon_sym_late]), (ACTIONS 69, 1, [anon_sym_external]), (ACTIONS 143, 1,
       [anon_sym_AT]), (ACTIONS 145, 1, [anon_sym_final]), (ACTIONS 153, 1,
       [anon_sym_covariant]), (ACTIONS 1703, 1, [sym_identifier]), (ACTIONS 1705, 1,
       [anon_sym_RBRACE]), (ACTIONS 1707, 1, [anon_sym_factory]), (ACTIONS 1709, 1,
       [anon_sym_operator]), (ACTIONS 1711, 1, [anon_sym_static]), (ACTIONS 1713, 1,
       [sym_const_builtin]), (STATE 596, 1, [aux_sym_enum_body_repeat2]), (STATE 696, 1,
       [sym__metadata]), (STATE 1308, 1, [aux_sym__metadata_repeat1]), (STATE 1361, 1,
       [sym_annotation]), (STATE 1463, 1, [sym__function_builtin_identifier]), (STATE 1530, 1,
       [sym__type_name]), (STATE 1538, 1, [sym__static]), (STATE 1542, 1, [sym__operator]),
       (STATE 1605, 1, [aux_sym__function_type_tails]), (STATE 1668, 1, [sym__external]), (STATE
       1704, 1, [sym__function_type_tail]), (STATE 1796, 1, [sym__type_not_function]), (STATE
       1797, 1, [sym__external_builtin]), (STATE 1805, 1, [sym_record_type]), (STATE 1848, 1,
       [sym_function_type]), (STATE 1894, 1, [sym__external_and_static]), (STATE 1896, 1,
       [sym__type_not_void_not_function]), (STATE 1914, 1, [sym__late_builtin]), (STATE 1946, 1,
       [sym__covariant]), (STATE 1976, 1, [sym_inferred_type]), (STATE 1983, 1,
       [sym_final_builtin]), (STATE 2187, 1, [sym_constructor_signature]), (STATE 2377, 1,
       [sym__set]), (STATE 2411, 1, [sym__get]), (STATE 2417, 1, [sym_method_signature]), (STATE
       2418, 1, [sym_factory_constructor_signature]), (STATE 2437, 1, [sym__type]), (STATE 2610,
       1, [sym_constant_constructor_signature]), (STATE 2934, 1, [sym__var_or_type]), (STATE
       3049, 1, [sym_declaration]), (STATE 3523, 1, [sym__factory]), (STATE 3528, 1,
       [sym_redirecting_factory_constructor_signature]), (STATE 577, 2, [sym_comment,
       sym_documentation_comment]), (STATE 2451, 4, [sym_getter_signature, sym_setter_signature,
       sym_operator_signature, sym_function_signature])])]"

lemma small_run_62: "small_run 577 8598 ts_small_parse_table_62 578 8771"
  by (simp add: small_simps ts_small_parse_table_62_def)

definition ts_small_parse_table_63 :: "small_group list" where
  "ts_small_parse_table_63 = [
     (8771, 8, [(ACTIONS 3, 1, [anon_sym_SLASH_SLASH]), (ACTIONS 5, 1, [anon_sym_SLASH_STAR]),
       (ACTIONS 7, 1, [anon_sym_SLASH_SLASH_SLASH]), (ACTIONS 9, 1, [sym__block_comment]),
       (ACTIONS 11, 1, [sym__documentation_block_comment]), (STATE 578, 2, [sym_comment,
       sym_documentation_comment]), (ACTIONS 1697, 19, [anon_sym_EQ, anon_sym_QMARK_QMARK,
       anon_sym_QMARK, anon_sym_LT, anon_sym_GT, anon_sym_PIPE, anon_sym_CARET, anon_sym_AMP,
       anon_sym_LT_LT, anon_sym_GT_GT, anon_sym_GT_GT_GT, sym__additive_operator, anon_sym_STAR,
       anon_sym_SLASH, anon_sym_PERCENT, anon_sym_TILDE_SLASH, anon_sym_BANG, anon_sym_DOT,
       anon_sym_QMARK_DOT]), (ACTIONS 1695, 34, [anon_sym_RBRACE, anon_sym_LBRACK,
       anon_sym_COMMA, anon_sym_RBRACK, anon_sym_COLON, anon_sym_LPAREN, anon_sym_RPAREN,
       anon_sym_PLUS_EQ, anon_sym_DASH_EQ, anon_sym_STAR_EQ, anon_sym_SLASH_EQ,
       anon_sym_PERCENT_EQ, anon_sym_TILDE_SLASH_EQ, anon_sym_LT_LT_EQ, anon_sym_GT_GT_EQ,
       anon_sym_GT_GT_GT_EQ, anon_sym_AMP_EQ, anon_sym_CARET_EQ, anon_sym_PIPE_EQ,
       anon_sym_QMARK_QMARK_EQ, sym_equality_operator, anon_sym_LT_EQ, anon_sym_GT_EQ,
       anon_sym_is, anon_sym_as, anon_sym_DOT_DOT, anon_sym_QMARK_DOT_DOT, anon_sym_SEMI,
       anon_sym_EQ_GT, anon_sym_when, anon_sym_case, anon_sym_else, anon_sym_AMP_AMP,
       anon_sym_PIPE_PIPE])]),
     (8848, 8, [(ACTIONS 3, 1, [anon_sym_SLASH_SLASH]), (ACTIONS 5, 1, [anon_sym_SLASH_STAR]),
       (ACTIONS 7, 1, [anon_sym_SLASH_SLASH_SLASH]), (ACTIONS 9, 1, [sym__block_comment]),
       (ACTIONS 11, 1, [sym__documentation_block_comment]), (STATE 579, 2, [sym_comment,
       sym_documentation_comment]), (ACTIONS 1717, 19, [anon_sym_EQ, anon_sym_QMARK_QMARK,
       anon_sym_QMARK, anon_sym_LT, anon_sym_GT, anon_sym_PIPE, anon_sym_CARET, anon_sym_AMP,
       anon_sym_LT_LT, anon_sym_GT_GT, anon_sym_GT_GT_GT, sym__additive_operator, anon_sym_STAR,
       anon_sym_SLASH, anon_sym_PERCENT, anon_sym_TILDE_SLASH, anon_sym_BANG, anon_sym_DOT,
       anon_sym_QMARK_DOT]), (ACTIONS 1715, 34, [anon_sym_RBRACE, anon_sym_LBRACK,
       anon_sym_COMMA, anon_sym_RBRACK, anon_sym_COLON, anon_sym_LPAREN, anon_sym_RPAREN,
       anon_sym_PLUS_EQ, anon_sym_DASH_EQ, anon_sym_STAR_EQ, anon_sym_SLASH_EQ,
       anon_sym_PERCENT_EQ, anon_sym_TILDE_SLASH_EQ, anon_sym_LT_LT_EQ, anon_sym_GT_GT_EQ,
       anon_sym_GT_GT_GT_EQ, anon_sym_AMP_EQ, anon_sym_CARET_EQ, anon_sym_PIPE_EQ,
       anon_sym_QMARK_QMARK_EQ, sym_equality_operator, anon_sym_LT_EQ, anon_sym_GT_EQ,
       anon_sym_is, anon_sym_as, anon_sym_DOT_DOT, anon_sym_QMARK_DOT_DOT, anon_sym_SEMI,
       anon_sym_EQ_GT, anon_sym_when, anon_sym_case, anon_sym_else, anon_sym_AMP_AMP,
       anon_sym_PIPE_PIPE])])]"

lemma small_run_63: "small_run 578 8771 ts_small_parse_table_63 580 8925"
  by (simp add: small_simps ts_small_parse_table_63_def)

definition ts_small_parse_table_64 :: "small_group list" where
  "ts_small_parse_table_64 = [
     (8925, 8, [(ACTIONS 3, 1, [anon_sym_SLASH_SLASH]), (ACTIONS 5, 1, [anon_sym_SLASH_STAR]),
       (ACTIONS 7, 1, [anon_sym_SLASH_SLASH_SLASH]), (ACTIONS 9, 1, [sym__block_comment]),
       (ACTIONS 11, 1, [sym__documentation_block_comment]), (STATE 580, 2, [sym_comment,
       sym_documentation_comment]), (ACTIONS 1721, 19, [anon_sym_EQ, anon_sym_QMARK_QMARK,
       anon_sym_QMARK, anon_sym_LT, anon_sym_GT, anon_sym_PIPE, anon_sym_CARET, anon_sym_AMP,
       anon_sym_LT_LT, anon_sym_GT_GT, anon_sym_GT_GT_GT, sym__additive_operator, anon_sym_STAR,
       anon_sym_SLASH, anon_sym_PERCENT, anon_sym_TILDE_SLASH, anon_sym_BANG, anon_sym_DOT,
       anon_sym_QMARK_DOT]), (ACTIONS 1719, 34, [anon_sym_RBRACE, anon_sym_LBRACK,
       anon_sym_COMMA, anon_sym_RBRACK, anon_sym_COLON, anon_sym_LPAREN, anon_sym_RPAREN,
       anon_sym_PLUS_EQ, anon_sym_DASH_EQ, anon_sym_STAR_EQ, anon_sym_SLASH_EQ,
       anon_sym_PERCENT_EQ, anon_sym_TILDE_SLASH_EQ, anon_sym_LT_LT_EQ, anon_sym_GT_GT_EQ,
       anon_sym_GT_GT_GT_EQ, anon_sym_AMP_EQ, anon_sym_CARET_EQ, anon_sym_PIPE_EQ,
       anon_sym_QMARK_QMARK_EQ, sym_equality_operator, anon_sym_LT_EQ, anon_sym_GT_EQ,
       anon_sym_is, anon_sym_as, anon_sym_DOT_DOT, anon_sym_QMARK_DOT_DOT, anon_sym_SEMI,
       anon_sym_EQ_GT, anon_sym_when, anon_sym_case, anon_sym_else, anon_sym_AMP_AMP,
       anon_sym_PIPE_PIPE])]),
     (9002, 8, [(ACTIONS 3, 1, [anon_sym_SLASH_SLASH]), (ACTIONS 5, 1, [anon_sym_SLASH_STAR]),
       (ACTIONS 7, 1, [anon_sym_SLASH_SLASH_SLASH]), (ACTIONS 9, 1, [sym__block_comment]),
       (ACTIONS 11, 1, [sym__documentation_block_comment]), (STATE 581, 2, [sym_comment,
       sym_documentation_comment]), (ACTIONS 1645, 19, [anon_sym_EQ, anon_sym_QMARK_QMARK,
       anon_sym_QMARK, anon_sym_LT, anon_sym_GT, anon_sym_PIPE, anon_sym_CARET, anon_sym_AMP,
       anon_sym_LT_LT, anon_sym_GT_GT, anon_sym_GT_GT_GT, sym__additive_operator, anon_sym_STAR,
       anon_sym_SLASH, anon_sym_PERCENT, anon_sym_TILDE_SLASH, anon_sym_BANG, anon_sym_DOT,
       anon_sym_QMARK_DOT]), (ACTIONS 1643, 34, [anon_sym_RBRACE, anon_sym_LBRACK,
       anon_sym_COMMA, anon_sym_RBRACK, anon_sym_COLON, anon_sym_LPAREN, anon_sym_RPAREN,
       anon_sym_PLUS_EQ, anon_sym_DASH_EQ, anon_sym_STAR_EQ, anon_sym_SLASH_EQ,
       anon_sym_PERCENT_EQ, anon_sym_TILDE_SLASH_EQ, anon_sym_LT_LT_EQ, anon_sym_GT_GT_EQ,
       anon_sym_GT_GT_GT_EQ, anon_sym_AMP_EQ, anon_sym_CARET_EQ, anon_sym_PIPE_EQ,
       anon_sym_QMARK_QMARK_EQ, sym_equality_operator, anon_sym_LT_EQ, anon_sym_GT_EQ,
       anon_sym_is, anon_sym_as, anon_sym_DOT_DOT, anon_sym_QMARK_DOT_DOT, anon_sym_SEMI,
       anon_sym_EQ_GT, anon_sym_when, anon_sym_case, anon_sym_else, anon_sym_AMP_AMP,
       anon_sym_PIPE_PIPE])])]"

lemma small_run_64: "small_run 580 8925 ts_small_parse_table_64 582 9079"
  by (simp add: small_simps ts_small_parse_table_64_def)

definition ts_small_parse_table_65 :: "small_group list" where
  "ts_small_parse_table_65 = [
     (9079, 8, [(ACTIONS 3, 1, [anon_sym_SLASH_SLASH]), (ACTIONS 5, 1, [anon_sym_SLASH_STAR]),
       (ACTIONS 7, 1, [anon_sym_SLASH_SLASH_SLASH]), (ACTIONS 9, 1, [sym__block_comment]),
       (ACTIONS 11, 1, [sym__documentation_block_comment]), (STATE 582, 2, [sym_comment,
       sym_documentation_comment]), (ACTIONS 1725, 19, [anon_sym_EQ, anon_sym_QMARK_QMARK,
       anon_sym_QMARK, anon_sym_LT, anon_sym_GT, anon_sym_PIPE, anon_sym_CARET, anon_sym_AMP,
       anon_sym_LT_LT, anon_sym_GT_GT, anon_sym_GT_GT_GT, sym__additive_operator, anon_sym_STAR,
       anon_sym_SLASH, anon_sym_PERCENT, anon_sym_TILDE_SLASH, anon_sym_BANG, anon_sym_DOT,
       anon_sym_QMARK_DOT]), (ACTIONS 1723, 34, [anon_sym_RBRACE, anon_sym_LBRACK,
       anon_sym_COMMA, anon_sym_RBRACK, anon_sym_COLON, anon_sym_LPAREN, anon_sym_RPAREN,
       anon_sym_PLUS_EQ, anon_sym_DASH_EQ, anon_sym_STAR_EQ, anon_sym_SLASH_EQ,
       anon_sym_PERCENT_EQ, anon_sym_TILDE_SLASH_EQ, anon_sym_LT_LT_EQ, anon_sym_GT_GT_EQ,
       anon_sym_GT_GT_GT_EQ, anon_sym_AMP_EQ, anon_sym_CARET_EQ, anon_sym_PIPE_EQ,
       anon_sym_QMARK_QMARK_EQ, sym_equality_operator, anon_sym_LT_EQ, anon_sym_GT_EQ,
       anon_sym_is, anon_sym_as, anon_sym_DOT_DOT, anon_sym_QMARK_DOT_DOT, anon_sym_SEMI,
       anon_sym_EQ_GT, anon_sym_when, anon_sym_case, anon_sym_else, anon_sym_AMP_AMP,
       anon_sym_PIPE_PIPE])]),
     (9156, 8, [(ACTIONS 3, 1, [anon_sym_SLASH_SLASH]), (ACTIONS 5, 1, [anon_sym_SLASH_STAR]),
       (ACTIONS 7, 1, [anon_sym_SLASH_SLASH_SLASH]), (ACTIONS 9, 1, [sym__block_comment]),
       (ACTIONS 11, 1, [sym__documentation_block_comment]), (STATE 583, 2, [sym_comment,
       sym_documentation_comment]), (ACTIONS 1729, 19, [anon_sym_EQ, anon_sym_QMARK_QMARK,
       anon_sym_QMARK, anon_sym_LT, anon_sym_GT, anon_sym_PIPE, anon_sym_CARET, anon_sym_AMP,
       anon_sym_LT_LT, anon_sym_GT_GT, anon_sym_GT_GT_GT, sym__additive_operator, anon_sym_STAR,
       anon_sym_SLASH, anon_sym_PERCENT, anon_sym_TILDE_SLASH, anon_sym_BANG, anon_sym_DOT,
       anon_sym_QMARK_DOT]), (ACTIONS 1727, 34, [anon_sym_RBRACE, anon_sym_LBRACK,
       anon_sym_COMMA, anon_sym_RBRACK, anon_sym_COLON, anon_sym_LPAREN, anon_sym_RPAREN,
       anon_sym_PLUS_EQ, anon_sym_DASH_EQ, anon_sym_STAR_EQ, anon_sym_SLASH_EQ,
       anon_sym_PERCENT_EQ, anon_sym_TILDE_SLASH_EQ, anon_sym_LT_LT_EQ, anon_sym_GT_GT_EQ,
       anon_sym_GT_GT_GT_EQ, anon_sym_AMP_EQ, anon_sym_CARET_EQ, anon_sym_PIPE_EQ,
       anon_sym_QMARK_QMARK_EQ, sym_equality_operator, anon_sym_LT_EQ, anon_sym_GT_EQ,
       anon_sym_is, anon_sym_as, anon_sym_DOT_DOT, anon_sym_QMARK_DOT_DOT, anon_sym_SEMI,
       anon_sym_EQ_GT, anon_sym_when, anon_sym_case, anon_sym_else, anon_sym_AMP_AMP,
       anon_sym_PIPE_PIPE])])]"

lemma small_run_65: "small_run 582 9079 ts_small_parse_table_65 584 9233"
  by (simp add: small_simps ts_small_parse_table_65_def)

definition ts_small_parse_table_66 :: "small_group list" where
  "ts_small_parse_table_66 = [
     (9233, 8, [(ACTIONS 3, 1, [anon_sym_SLASH_SLASH]), (ACTIONS 5, 1, [anon_sym_SLASH_STAR]),
       (ACTIONS 7, 1, [anon_sym_SLASH_SLASH_SLASH]), (ACTIONS 9, 1, [sym__block_comment]),
       (ACTIONS 11, 1, [sym__documentation_block_comment]), (STATE 584, 2, [sym_comment,
       sym_documentation_comment]), (ACTIONS 1659, 19, [anon_sym_EQ, anon_sym_QMARK_QMARK,
       anon_sym_QMARK, anon_sym_LT, anon_sym_GT, anon_sym_PIPE, anon_sym_CARET, anon_sym_AMP,
       anon_sym_LT_LT, anon_sym_GT_GT, anon_sym_GT_GT_GT, sym__additive_operator, anon_sym_STAR,
       anon_sym_SLASH, anon_sym_PERCENT, anon_sym_TILDE_SLASH, anon_sym_BANG, anon_sym_DOT,
       anon_sym_QMARK_DOT]), (ACTIONS 1657, 34, [anon_sym_RBRACE, anon_sym_LBRACK,
       anon_sym_COMMA, anon_sym_RBRACK, anon_sym_COLON, anon_sym_LPAREN, anon_sym_RPAREN,
       anon_sym_PLUS_EQ, anon_sym_DASH_EQ, anon_sym_STAR_EQ, anon_sym_SLASH_EQ,
       anon_sym_PERCENT_EQ, anon_sym_TILDE_SLASH_EQ, anon_sym_LT_LT_EQ, anon_sym_GT_GT_EQ,
       anon_sym_GT_GT_GT_EQ, anon_sym_AMP_EQ, anon_sym_CARET_EQ, anon_sym_PIPE_EQ,
       anon_sym_QMARK_QMARK_EQ, sym_equality_operator, anon_sym_LT_EQ, anon_sym_GT_EQ,
       anon_sym_is, anon_sym_as, anon_sym_DOT_DOT, anon_sym_QMARK_DOT_DOT, anon_sym_SEMI,
       anon_sym_EQ_GT, anon_sym_when, anon_sym_case, anon_sym_else, anon_sym_AMP_AMP,
       anon_sym_PIPE_PIPE])]),
     (9310, 8, [(ACTIONS 3, 1, [anon_sym_SLASH_SLASH]), (ACTIONS 5, 1, [anon_sym_SLASH_STAR]),
       (ACTIONS 7, 1, [anon_sym_SLASH_SLASH_SLASH]), (ACTIONS 9, 1, [sym__block_comment]),
       (ACTIONS 11, 1, [sym__documentation_block_comment]), (STATE 585, 2, [sym_comment,
       sym_documentation_comment]), (ACTIONS 1733, 19, [anon_sym_EQ, anon_sym_QMARK_QMARK,
       anon_sym_QMARK, anon_sym_LT, anon_sym_GT, anon_sym_PIPE, anon_sym_CARET, anon_sym_AMP,
       anon_sym_LT_LT, anon_sym_GT_GT, anon_sym_GT_GT_GT, sym__additive_operator, anon_sym_STAR,
       anon_sym_SLASH, anon_sym_PERCENT, anon_sym_TILDE_SLASH, anon_sym_BANG, anon_sym_DOT,
       anon_sym_QMARK_DOT]), (ACTIONS 1731, 34, [anon_sym_RBRACE, anon_sym_LBRACK,
       anon_sym_COMMA, anon_sym_RBRACK, anon_sym_COLON, anon_sym_LPAREN, anon_sym_RPAREN,
       anon_sym_PLUS_EQ, anon_sym_DASH_EQ, anon_sym_STAR_EQ, anon_sym_SLASH_EQ,
       anon_sym_PERCENT_EQ, anon_sym_TILDE_SLASH_EQ, anon_sym_LT_LT_EQ, anon_sym_GT_GT_EQ,
       anon_sym_GT_GT_GT_EQ, anon_sym_AMP_EQ, anon_sym_CARET_EQ, anon_sym_PIPE_EQ,
       anon_sym_QMARK_QMARK_EQ, sym_equality_operator, anon_sym_LT_EQ, anon_sym_GT_EQ,
       anon_sym_is, anon_sym_as, anon_sym_DOT_DOT, anon_sym_QMARK_DOT_DOT, anon_sym_SEMI,
       anon_sym_EQ_GT, anon_sym_when, anon_sym_case, anon_sym_else, anon_sym_AMP_AMP,
       anon_sym_PIPE_PIPE])])]"

lemma small_run_66: "small_run 584 9233 ts_small_parse_table_66 586 9387"
  by (simp add: small_simps ts_small_parse_table_66_def)

definition ts_small_parse_table_67 :: "small_group list" where
  "ts_small_parse_table_67 = [
     (9387, 56, [(ACTIONS 3, 1, [anon_sym_SLASH_SLASH]), (ACTIONS 5, 1, [anon_sym_SLASH_STAR]),
       (ACTIONS 7, 1, [anon_sym_SLASH_SLASH_SLASH]), (ACTIONS 9, 1, [sym__block_comment]),
       (ACTIONS 11, 1, [sym__documentation_block_comment]), (ACTIONS 17, 1, [anon_sym_LPAREN]),
       (ACTIONS 33, 1, [sym_void_type]), (ACTIONS 35, 1, [anon_sym_var]), (ACTIONS 45, 1,
       [anon_sym_Function]), (ACTIONS 47, 1, [anon_sym_get]), (ACTIONS 61, 1, [anon_sym_set]),
       (ACTIONS 67, 1, [anon_sym_late]), (ACTIONS 69, 1, [anon_sym_external]), (ACTIONS 143, 1,
       [anon_sym_AT]), (ACTIONS 145, 1, [anon_sym_final]), (ACTIONS 153, 1,
       [anon_sym_covariant]), (ACTIONS 1703, 1, [sym_identifier]), (ACTIONS 1707, 1,
       [anon_sym_factory]), (ACTIONS 1709, 1, [anon_sym_operator]), (ACTIONS 1711, 1,
       [anon_sym_static]), (ACTIONS 1713, 1, [sym_const_builtin]), (ACTIONS 1735, 1,
       [anon_sym_RBRACE]), (STATE 597, 1, [aux_sym_enum_body_repeat2]), (STATE 696, 1,
       [sym__metadata]), (STATE 1308, 1, [aux_sym__metadata_repeat1]), (STATE 1361, 1,
       [sym_annotation]), (STATE 1463, 1, [sym__function_builtin_identifier]), (STATE 1530, 1,
       [sym__type_name]), (STATE 1538, 1, [sym__static]), (STATE 1542, 1, [sym__operator]),
       (STATE 1605, 1, [aux_sym__function_type_tails]), (STATE 1668, 1, [sym__external]), (STATE
       1704, 1, [sym__function_type_tail]), (STATE 1796, 1, [sym__type_not_function]), (STATE
       1797, 1, [sym__external_builtin]), (STATE 1805, 1, [sym_record_type]), (STATE 1848, 1,
       [sym_function_type]), (STATE 1894, 1, [sym__external_and_static]), (STATE 1896, 1,
       [sym__type_not_void_not_function]), (STATE 1914, 1, [sym__late_builtin]), (STATE 1946, 1,
       [sym__covariant]), (STATE 1976, 1, [sym_inferred_type]), (STATE 1983, 1,
       [sym_final_builtin]), (STATE 2187, 1, [sym_constructor_signature]), (STATE 2377, 1,
       [sym__set]), (STATE 2411, 1, [sym__get]), (STATE 2417, 1, [sym_method_signature]), (STATE
       2418, 1, [sym_factory_constructor_signature]), (STATE 2437, 1, [sym__type]), (STATE 2610,
       1, [sym_constant_constructor_signature]), (STATE 2934, 1, [sym__var_or_type]), (STATE
       3049, 1, [sym_declaration]), (STATE 3523, 1, [sym__factory]), (STATE 3528, 1,
       [sym_redirecting_factory_constructor_signature]), (STATE 586, 2, [sym_comment,
       sym_documentation_comment]), (STATE 2451, 4, [sym_getter_signature, sym_setter_signature,
       sym_operator_signature, sym_function_signature])])]"

lemma small_run_67: "small_run 586 9387 ts_small_parse_table_67 587 9560"
  by (simp add: small_simps ts_small_parse_table_67_def)

definition ts_small_parse_table_68 :: "small_group list" where
  "ts_small_parse_table_68 = [
     (9560, 8, [(ACTIONS 3, 1, [anon_sym_SLASH_SLASH]), (ACTIONS 5, 1, [anon_sym_SLASH_STAR]),
       (ACTIONS 7, 1, [anon_sym_SLASH_SLASH_SLASH]), (ACTIONS 9, 1, [sym__block_comment]),
       (ACTIONS 11, 1, [sym__documentation_block_comment]), (STATE 587, 2, [sym_comment,
       sym_documentation_comment]), (ACTIONS 1739, 19, [anon_sym_EQ, anon_sym_QMARK_QMARK,
       anon_sym_QMARK, anon_sym_LT, anon_sym_GT, anon_sym_PIPE, anon_sym_CARET, anon_sym_AMP,
       anon_sym_LT_LT, anon_sym_GT_GT, anon_sym_GT_GT_GT, sym__additive_operator, anon_sym_STAR,
       anon_sym_SLASH, anon_sym_PERCENT, anon_sym_TILDE_SLASH, anon_sym_BANG, anon_sym_DOT,
       anon_sym_QMARK_DOT]), (ACTIONS 1737, 34, [anon_sym_RBRACE, anon_sym_LBRACK,
       anon_sym_COMMA, anon_sym_RBRACK, anon_sym_COLON, anon_sym_LPAREN, anon_sym_RPAREN,
       anon_sym_PLUS_EQ, anon_sym_DASH_EQ, anon_sym_STAR_EQ, anon_sym_SLASH_EQ,
       anon_sym_PERCENT_EQ, anon_sym_TILDE_SLASH_EQ, anon_sym_LT_LT_EQ, anon_sym_GT_GT_EQ,
       anon_sym_GT_GT_GT_EQ, anon_sym_AMP_EQ, anon_sym_CARET_EQ, anon_sym_PIPE_EQ,
       anon_sym_QMARK_QMARK_EQ, sym_equality_operator, anon_sym_LT_EQ, anon_sym_GT_EQ,
       anon_sym_is, anon_sym_as, anon_sym_DOT_DOT, anon_sym_QMARK_DOT_DOT, anon_sym_SEMI,
       anon_sym_EQ_GT, anon_sym_when, anon_sym_case, anon_sym_else, anon_sym_AMP_AMP,
       anon_sym_PIPE_PIPE])])]"

lemma small_run_68: "small_run 587 9560 ts_small_parse_table_68 588 9637"
  by (simp add: small_simps ts_small_parse_table_68_def)

definition ts_small_parse_table_69 :: "small_group list" where
  "ts_small_parse_table_69 = [
     (9637, 56, [(ACTIONS 3, 1, [anon_sym_SLASH_SLASH]), (ACTIONS 5, 1, [anon_sym_SLASH_STAR]),
       (ACTIONS 7, 1, [anon_sym_SLASH_SLASH_SLASH]), (ACTIONS 9, 1, [sym__block_comment]),
       (ACTIONS 11, 1, [sym__documentation_block_comment]), (ACTIONS 17, 1, [anon_sym_LPAREN]),
       (ACTIONS 33, 1, [sym_void_type]), (ACTIONS 35, 1, [anon_sym_var]), (ACTIONS 45, 1,
       [anon_sym_Function]), (ACTIONS 47, 1, [anon_sym_get]), (ACTIONS 61, 1, [anon_sym_set]),
       (ACTIONS 67, 1, [anon_sym_late]), (ACTIONS 69, 1, [anon_sym_external]), (ACTIONS 143, 1,
       [anon_sym_AT]), (ACTIONS 145, 1, [anon_sym_final]), (ACTIONS 153, 1,
       [anon_sym_covariant]), (ACTIONS 1703, 1, [sym_identifier]), (ACTIONS 1707, 1,
       [anon_sym_factory]), (ACTIONS 1709, 1, [anon_sym_operator]), (ACTIONS 1711, 1,
       [anon_sym_static]), (ACTIONS 1713, 1, [sym_const_builtin]), (ACTIONS 1741, 1,
       [anon_sym_RBRACE]), (STATE 597, 1, [aux_sym_enum_body_repeat2]), (STATE 696, 1,
       [sym__metadata]), (STATE 1308, 1, [aux_sym__metadata_repeat1]), (STATE 1361, 1,
       [sym_annotation]), (STATE 1463, 1, [sym__function_builtin_identifier]), (STATE 1530, 1,
       [sym__type_name]), (STATE 1538, 1, [sym__static]), (STATE 1542, 1, [sym__operator]),
       (STATE 1605, 1, [aux_sym__function_type_tails]), (STATE 1668, 1, [sym__external]), (STATE
       1704, 1, [sym__function_type_tail]), (STATE 1796, 1, [sym__type_not_function]), (STATE
       1797, 1, [sym__external_builtin]), (STATE 1805, 1, [sym_record_type]), (STATE 1848, 1,
       [sym_function_type]), (STATE 1894, 1, [sym__external_and_static]), (STATE 1896, 1,
       [sym__type_not_void_not_function]), (STATE 1914, 1, [sym__late_builtin]), (STATE 1946, 1,
       [sym__covariant]), (STATE 1976, 1, [sym_inferred_type]), (STATE 1983, 1,
       [sym_final_builtin]), (STATE 2187, 1, [sym_constructor_signature]), (STATE 2377, 1,
       [sym__set]), (STATE 2411, 1, [sym__get]), (STATE 2417, 1, [sym_method_signature]), (STATE
       2418, 1, [sym_factory_constructor_signature]), (STATE 2437, 1, [sym__type]), (STATE 2610,
       1, [sym_constant_constructor_signature]), (STATE 2934, 1, [sym__var_or_type]), (STATE
       3049, 1, [sym_declaration]), (STATE 3523, 1, [sym__factory]), (STATE 3528, 1,
       [sym_redirecting_factory_constructor_signature]), (STATE 588, 2, [sym_comment,
       sym_documentation_comment]), (STATE 2451, 4, [sym_getter_signature, sym_setter_signature,
       sym_operator_signature, sym_function_signature])])]"

lemma small_run_69: "small_run 588 9637 ts_small_parse_table_69 589 9810"
  by (simp add: small_simps ts_small_parse_table_69_def)

definition ts_small_parse_table_70 :: "small_group list" where
  "ts_small_parse_table_70 = [
     (9810, 55, [(ACTIONS 3, 1, [anon_sym_SLASH_SLASH]), (ACTIONS 5, 1, [anon_sym_SLASH_STAR]),
       (ACTIONS 7, 1, [anon_sym_SLASH_SLASH_SLASH]), (ACTIONS 9, 1, [sym__block_comment]),
       (ACTIONS 11, 1, [sym__documentation_block_comment]), (ACTIONS 1743, 1, [sym_identifier]),
       (ACTIONS 1746, 1, [anon_sym_RBRACE]), (ACTIONS 1748, 1, [anon_sym_LPAREN]), (ACTIONS 1751,
       1, [anon_sym_AT]), (ACTIONS 1754, 1, [anon_sym_final]), (ACTIONS 1757, 1,
       [sym_void_type]), (ACTIONS 1760, 1, [anon_sym_var]), (ACTIONS 1763, 1,
       [anon_sym_covariant]), (ACTIONS 1766, 1, [anon_sym_factory]), (ACTIONS 1769, 1,
       [anon_sym_Function]), (ACTIONS 1772, 1, [anon_sym_get]), (ACTIONS 1775, 1,
       [anon_sym_operator]), (ACTIONS 1778, 1, [anon_sym_set]), (ACTIONS 1781, 1,
       [anon_sym_static]), (ACTIONS 1784, 1, [sym_const_builtin]), (ACTIONS 1787, 1,
       [anon_sym_late]), (ACTIONS 1790, 1, [anon_sym_external]), (STATE 685, 1, [sym__metadata]),
       (STATE 1308, 1, [aux_sym__metadata_repeat1]), (STATE 1361, 1, [sym_annotation]), (STATE
       1463, 1, [sym__function_builtin_identifier]), (STATE 1530, 1, [sym__type_name]), (STATE
       1538, 1, [sym__static]), (STATE 1542, 1, [sym__operator]), (STATE 1605, 1,
       [aux_sym__function_type_tails]), (STATE 1668, 1, [sym__external]), (STATE 1704, 1,
       [sym__function_type_tail]), (STATE 1796, 1, [sym__type_not_function]), (STATE 1797, 1,
       [sym__external_builtin]), (STATE 1805, 1, [sym_record_type]), (STATE 1848, 1,
       [sym_function_type]), (STATE 1894, 1, [sym__external_and_static]), (STATE 1896, 1,
       [sym__type_not_void_not_function]), (STATE 1914, 1, [sym__late_builtin]), (STATE 1946, 1,
       [sym__covariant]), (STATE 1976, 1, [sym_inferred_type]), (STATE 1983, 1,
       [sym_final_builtin]), (STATE 2187, 1, [sym_constructor_signature]), (STATE 2370, 1,
       [sym_method_signature]), (STATE 2377, 1, [sym__set]), (STATE 2411, 1, [sym__get]), (STATE
       2418, 1, [sym_factory_constructor_signature]), (STATE 2437, 1, [sym__type]), (STATE 2610,
       1, [sym_constant_constructor_signature]), (STATE 2934, 1, [sym__var_or_type]), (STATE
       3265, 1, [sym_declaration]), (STATE 3523, 1, [sym__factory]), (STATE 3528, 1,
       [sym_redirecting_factory_constructor_signature]), (STATE 589, 3, [sym_comment,
       sym_documentation_comment, aux_sym_extension_body_repeat1]), (STATE 2451, 4,
       [sym_getter_signature, sym_setter_signature, sym_operator_signature,
       sym_function_signature])])]"

lemma small_run_70: "small_run 589 9810 ts_small_parse_table_70 590 9981"
  by (simp add: small_simps ts_small_parse_table_70_def)

definition ts_small_parse_table_71 :: "small_group list" where
  "ts_small_parse_table_71 = [
     (9981, 56, [(ACTIONS 3, 1, [anon_sym_SLASH_SLASH]), (ACTIONS 5, 1, [anon_sym_SLASH_STAR]),
       (ACTIONS 7, 1, [anon_sym_SLASH_SLASH_SLASH]), (ACTIONS 9, 1, [sym__block_comment]),
       (ACTIONS 11, 1, [sym__documentation_block_comment]), (ACTIONS 17, 1, [anon_sym_LPAREN]),
       (ACTIONS 33, 1, [sym_void_type]), (ACTIONS 35, 1, [anon_sym_var]), (ACTIONS 45, 1,
       [anon_sym_Function]), (ACTIONS 47, 1, [anon_sym_get]), (ACTIONS 61, 1, [anon_sym_set]),
       (ACTIONS 67, 1, [anon_sym_late]), (ACTIONS 69, 1, [anon_sym_external]), (ACTIONS 143, 1,
       [anon_sym_AT]), (ACTIONS 145, 1, [anon_sym_final]), (ACTIONS 153, 1,
       [anon_sym_covariant]), (ACTIONS 1703, 1, [sym_identifier]), (ACTIONS 1707, 1,
       [anon_sym_factory]), (ACTIONS 1709, 1, [anon_sym_operator]), (ACTIONS 1711, 1,
       [anon_sym_static]), (ACTIONS 1713, 1, [sym_const_builtin]), (ACTIONS 1741, 1,
       [anon_sym_RBRACE]), (STATE 599, 1, [aux_sym_enum_body_repeat2]), (STATE 696, 1,
       [sym__metadata]), (STATE 1308, 1, [aux_sym__metadata_repeat1]), (STATE 1361, 1,
       [sym_annotation]), (STATE 1463, 1, [sym__function_builtin_identifier]), (STATE 1530, 1,
       [sym__type_name]), (STATE 1538, 1, [sym__static]), (STATE 1542, 1, [sym__operator]),
       (STATE 1605, 1, [aux_sym__function_type_tails]), (STATE 1668, 1, [sym__external]), (STATE
       1704, 1, [sym__function_type_tail]), (STATE 1796, 1, [sym__type_not_function]), (STATE
       1797, 1, [sym__external_builtin]), (STATE 1805, 1, [sym_record_type]), (STATE 1848, 1,
       [sym_function_type]), (STATE 1894, 1, [sym__external_and_static]), (STATE 1896, 1,
       [sym__type_not_void_not_function]), (STATE 1914, 1, [sym__late_builtin]), (STATE 1946, 1,
       [sym__covariant]), (STATE 1976, 1, [sym_inferred_type]), (STATE 1983, 1,
       [sym_final_builtin]), (STATE 2187, 1, [sym_constructor_signature]), (STATE 2377, 1,
       [sym__set]), (STATE 2411, 1, [sym__get]), (STATE 2417, 1, [sym_method_signature]), (STATE
       2418, 1, [sym_factory_constructor_signature]), (STATE 2437, 1, [sym__type]), (STATE 2610,
       1, [sym_constant_constructor_signature]), (STATE 2934, 1, [sym__var_or_type]), (STATE
       3049, 1, [sym_declaration]), (STATE 3523, 1, [sym__factory]), (STATE 3528, 1,
       [sym_redirecting_factory_constructor_signature]), (STATE 590, 2, [sym_comment,
       sym_documentation_comment]), (STATE 2451, 4, [sym_getter_signature, sym_setter_signature,
       sym_operator_signature, sym_function_signature])])]"

lemma small_run_71: "small_run 590 9981 ts_small_parse_table_71 591 10154"
  by (simp add: small_simps ts_small_parse_table_71_def)

definition ts_small_parse_table_72 :: "small_group list" where
  "ts_small_parse_table_72 = [
     (10154, 8, [(ACTIONS 3, 1, [anon_sym_SLASH_SLASH]), (ACTIONS 5, 1, [anon_sym_SLASH_STAR]),
       (ACTIONS 7, 1, [anon_sym_SLASH_SLASH_SLASH]), (ACTIONS 9, 1, [sym__block_comment]),
       (ACTIONS 11, 1, [sym__documentation_block_comment]), (STATE 591, 2, [sym_comment,
       sym_documentation_comment]), (ACTIONS 1663, 19, [anon_sym_EQ, anon_sym_QMARK_QMARK,
       anon_sym_QMARK, anon_sym_LT, anon_sym_GT, anon_sym_PIPE, anon_sym_CARET, anon_sym_AMP,
       anon_sym_LT_LT, anon_sym_GT_GT, anon_sym_GT_GT_GT, sym__additive_operator, anon_sym_STAR,
       anon_sym_SLASH, anon_sym_PERCENT, anon_sym_TILDE_SLASH, anon_sym_BANG, anon_sym_DOT,
       anon_sym_QMARK_DOT]), (ACTIONS 1661, 34, [anon_sym_RBRACE, anon_sym_LBRACK,
       anon_sym_COMMA, anon_sym_RBRACK, anon_sym_COLON, anon_sym_LPAREN, anon_sym_RPAREN,
       anon_sym_PLUS_EQ, anon_sym_DASH_EQ, anon_sym_STAR_EQ, anon_sym_SLASH_EQ,
       anon_sym_PERCENT_EQ, anon_sym_TILDE_SLASH_EQ, anon_sym_LT_LT_EQ, anon_sym_GT_GT_EQ,
       anon_sym_GT_GT_GT_EQ, anon_sym_AMP_EQ, anon_sym_CARET_EQ, anon_sym_PIPE_EQ,
       anon_sym_QMARK_QMARK_EQ, sym_equality_operator, anon_sym_LT_EQ, anon_sym_GT_EQ,
       anon_sym_is, anon_sym_as, anon_sym_DOT_DOT, anon_sym_QMARK_DOT_DOT, anon_sym_SEMI,
       anon_sym_EQ_GT, anon_sym_when, anon_sym_case, anon_sym_else, anon_sym_AMP_AMP,
       anon_sym_PIPE_PIPE])]),
     (10231, 17, [(ACTIONS 3, 1, [anon_sym_SLASH_SLASH]), (ACTIONS 5, 1,
       [anon_sym_SLASH_STAR]), (ACTIONS 7, 1, [anon_sym_SLASH_SLASH_SLASH]), (ACTIONS 9, 1,
       [sym__block_comment]), (ACTIONS 11, 1, [sym__documentation_block_comment]), (ACTIONS 1793,
       1, [anon_sym_DQUOTE]), (ACTIONS 1796, 1, [anon_sym_SQUOTE]), (ACTIONS 1799, 1,
       [anon_sym_DQUOTE_DQUOTE_DQUOTE]), (ACTIONS 1802, 1, [anon_sym_SQUOTE_SQUOTE_SQUOTE]),
       (ACTIONS 1805, 1, [anon_sym_r_DQUOTE]), (ACTIONS 1808, 1, [anon_sym_r_SQUOTE]), (ACTIONS
       1811, 1, [anon_sym_r_DQUOTE_DQUOTE_DQUOTE]), (ACTIONS 1814, 1,
       [anon_sym_r_SQUOTE_SQUOTE_SQUOTE]), (STATE 592, 3, [sym_comment,
       sym_documentation_comment, aux_sym_string_literal_repeat1]), (STATE 729, 8,
       [sym__string_literal_double_quotes, sym__string_literal_single_quotes,
       sym__string_literal_double_quotes_multiple, sym__string_literal_single_quotes_multiple,
       sym__raw_string_literal_double_quotes, sym__raw_string_literal_single_quotes,
       sym__raw_string_literal_double_quotes_multiple,
       sym__raw_string_literal_single_quotes_multiple]), (ACTIONS 1183, 12, [anon_sym_QMARK,
       anon_sym_LT, anon_sym_GT, anon_sym_PIPE, anon_sym_AMP, anon_sym_GT_GT, anon_sym_SLASH,
       anon_sym_BANG, anon_sym_as, anon_sym_DOT, anon_sym_QMARK_DOT, anon_sym_async]), (ACTIONS
       1181, 24, [anon_sym_LBRACE, anon_sym_LBRACK, anon_sym_COMMA, anon_sym_LPAREN,
       anon_sym_QMARK_QMARK, sym_equality_operator, anon_sym_LT_EQ, anon_sym_GT_EQ,
       anon_sym_CARET, anon_sym_LT_LT, anon_sym_GT_GT_GT, sym__additive_operator, anon_sym_STAR,
       anon_sym_PERCENT, anon_sym_TILDE_SLASH, anon_sym_is, anon_sym_DOT_DOT,
       anon_sym_QMARK_DOT_DOT, anon_sym_SEMI, anon_sym_EQ_GT, anon_sym_async_STAR,
       anon_sym_sync_STAR, anon_sym_AMP_AMP, anon_sym_PIPE_PIPE])])]"

lemma small_run_72: "small_run 591 10154 ts_small_parse_table_72 593 10326"
  by (simp add: small_simps ts_small_parse_table_72_def)

definition ts_small_parse_table_73 :: "small_group list" where
  "ts_small_parse_table_73 = [
     (10326, 56, [(ACTIONS 3, 1, [anon_sym_SLASH_SLASH]), (ACTIONS 5, 1,
       [anon_sym_SLASH_STAR]), (ACTIONS 7, 1, [anon_sym_SLASH_SLASH_SLASH]), (ACTIONS 9, 1,
       [sym__block_comment]), (ACTIONS 11, 1, [sym__documentation_block_comment]), (ACTIONS 17,
       1, [anon_sym_LPAREN]), (ACTIONS 33, 1, [sym_void_type]), (ACTIONS 35, 1, [anon_sym_var]),
       (ACTIONS 45, 1, [anon_sym_Function]), (ACTIONS 47, 1, [anon_sym_get]), (ACTIONS 61, 1,
       [anon_sym_set]), (ACTIONS 67, 1, [anon_sym_late]), (ACTIONS 69, 1, [anon_sym_external]),
       (ACTIONS 143, 1, [anon_sym_AT]), (ACTIONS 145, 1, [anon_sym_final]), (ACTIONS 153, 1,
       [anon_sym_covariant]), (ACTIONS 1703, 1, [sym_identifier]), (ACTIONS 1707, 1,
       [anon_sym_factory]), (ACTIONS 1709, 1, [anon_sym_operator]), (ACTIONS 1711, 1,
       [anon_sym_static]), (ACTIONS 1713, 1, [sym_const_builtin]), (ACTIONS 1817, 1,
       [anon_sym_RBRACE]), (STATE 598, 1, [aux_sym_extension_body_repeat1]), (STATE 685, 1,
       [sym__metadata]), (STATE 1308, 1, [aux_sym__metadata_repeat1]), (STATE 1361, 1,
       [sym_annotation]), (STATE 1463, 1, [sym__function_builtin_identifier]), (STATE 1530, 1,
       [sym__type_name]), (STATE 1538, 1, [sym__static]), (STATE 1542, 1, [sym__operator]),
       (STATE 1605, 1, [aux_sym__function_type_tails]), (STATE 1668, 1, [sym__external]), (STATE
       1704, 1, [sym__function_type_tail]), (STATE 1796, 1, [sym__type_not_function]), (STATE
       1797, 1, [sym__external_builtin]), (STATE 1805, 1, [sym_record_type]), (STATE 1848, 1,
       [sym_function_type]), (STATE 1894, 1, [sym__external_and_static]), (STATE 1896, 1,
       [sym__type_not_void_not_function]), (STATE 1914, 1, [sym__late_builtin]), (STATE 1946, 1,
       [sym__covariant]), (STATE 1976, 1, [sym_inferred_type]), (STATE 1983, 1,
       [sym_final_builtin]), (STATE 2187, 1, [sym_constructor_signature]), (STATE 2370, 1,
       [sym_method_signature]), (STATE 2377, 1, [sym__set]), (STATE 2411, 1, [sym__get]), (STATE
       2418, 1, [sym_factory_constructor_signature]), (STATE 2437, 1, [sym__type]), (STATE 2610,
       1, [sym_constant_constructor_signature]), (STATE 2934, 1, [sym__var_or_type]), (STATE
       3265, 1, [sym_declaration]), (STATE 3523, 1, [sym__factory]), (STATE 3528, 1,
       [sym_redirecting_factory_constructor_signature]), (STATE 593, 2, [sym_comment,
       sym_documentation_comment]), (STATE 2451, 4, [sym_getter_signature, sym_setter_signature,
       sym_operator_signature, sym_function_signature])])]"

lemma small_run_73: "small_run 593 10326 ts_small_parse_table_73 594 10499"
  by (simp add: small_simps ts_small_parse_table_73_def)

definition ts_small_parse_table_74 :: "small_group list" where
  "ts_small_parse_table_74 = [
     (10499, 8, [(ACTIONS 3, 1, [anon_sym_SLASH_SLASH]), (ACTIONS 5, 1, [anon_sym_SLASH_STAR]),
       (ACTIONS 7, 1, [anon_sym_SLASH_SLASH_SLASH]), (ACTIONS 9, 1, [sym__block_comment]),
       (ACTIONS 11, 1, [sym__documentation_block_comment]), (STATE 594, 2, [sym_comment,
       sym_documentation_comment]), (ACTIONS 1821, 19, [anon_sym_EQ, anon_sym_QMARK_QMARK,
       anon_sym_QMARK, anon_sym_LT, anon_sym_GT, anon_sym_PIPE, anon_sym_CARET, anon_sym_AMP,
       anon_sym_LT_LT, anon_sym_GT_GT, anon_sym_GT_GT_GT, sym__additive_operator, anon_sym_STAR,
       anon_sym_SLASH, anon_sym_PERCENT, anon_sym_TILDE_SLASH, anon_sym_BANG, anon_sym_DOT,
       anon_sym_QMARK_DOT]), (ACTIONS 1819, 34, [anon_sym_RBRACE, anon_sym_LBRACK,
       anon_sym_COMMA, anon_sym_RBRACK, anon_sym_COLON, anon_sym_LPAREN, anon_sym_RPAREN,
       anon_sym_PLUS_EQ, anon_sym_DASH_EQ, anon_sym_STAR_EQ, anon_sym_SLASH_EQ,
       anon_sym_PERCENT_EQ, anon_sym_TILDE_SLASH_EQ, anon_sym_LT_LT_EQ, anon_sym_GT_GT_EQ,
       anon_sym_GT_GT_GT_EQ, anon_sym_AMP_EQ, anon_sym_CARET_EQ, anon_sym_PIPE_EQ,
       anon_sym_QMARK_QMARK_EQ, sym_equality_operator, anon_sym_LT_EQ, anon_sym_GT_EQ,
       anon_sym_is, anon_sym_as, anon_sym_DOT_DOT, anon_sym_QMARK_DOT_DOT, anon_sym_SEMI,
       anon_sym_EQ_GT, anon_sym_when, anon_sym_case, anon_sym_else, anon_sym_AMP_AMP,
       anon_sym_PIPE_PIPE])]),
     (10576, 18, [(ACTIONS 3, 1, [anon_sym_SLASH_SLASH]), (ACTIONS 5, 1,
       [anon_sym_SLASH_STAR]), (ACTIONS 7, 1, [anon_sym_SLASH_SLASH_SLASH]), (ACTIONS 9, 1,
       [sym__block_comment]), (ACTIONS 11, 1, [sym__documentation_block_comment]), (ACTIONS 708,
       1, [anon_sym_DQUOTE]), (ACTIONS 710, 1, [anon_sym_SQUOTE]), (ACTIONS 712, 1,
       [anon_sym_DQUOTE_DQUOTE_DQUOTE]), (ACTIONS 714, 1, [anon_sym_SQUOTE_SQUOTE_SQUOTE]),
       (ACTIONS 716, 1, [anon_sym_r_DQUOTE]), (ACTIONS 718, 1, [anon_sym_r_SQUOTE]), (ACTIONS
       720, 1, [anon_sym_r_DQUOTE_DQUOTE_DQUOTE]), (ACTIONS 722, 1,
       [anon_sym_r_SQUOTE_SQUOTE_SQUOTE]), (STATE 592, 1, [aux_sym_string_literal_repeat1]),
       (STATE 595, 2, [sym_comment, sym_documentation_comment]), (STATE 729, 8,
       [sym__string_literal_double_quotes, sym__string_literal_single_quotes,
       sym__string_literal_double_quotes_multiple, sym__string_literal_single_quotes_multiple,
       sym__raw_string_literal_double_quotes, sym__raw_string_literal_single_quotes,
       sym__raw_string_literal_double_quotes_multiple,
       sym__raw_string_literal_single_quotes_multiple]), (ACTIONS 1187, 12, [anon_sym_QMARK,
       anon_sym_LT, anon_sym_GT, anon_sym_PIPE, anon_sym_AMP, anon_sym_GT_GT, anon_sym_SLASH,
       anon_sym_BANG, anon_sym_as, anon_sym_DOT, anon_sym_QMARK_DOT, anon_sym_async]), (ACTIONS
       1185, 24, [anon_sym_LBRACE, anon_sym_LBRACK, anon_sym_COMMA, anon_sym_LPAREN,
       anon_sym_QMARK_QMARK, sym_equality_operator, anon_sym_LT_EQ, anon_sym_GT_EQ,
       anon_sym_CARET, anon_sym_LT_LT, anon_sym_GT_GT_GT, sym__additive_operator, anon_sym_STAR,
       anon_sym_PERCENT, anon_sym_TILDE_SLASH, anon_sym_is, anon_sym_DOT_DOT,
       anon_sym_QMARK_DOT_DOT, anon_sym_SEMI, anon_sym_EQ_GT, anon_sym_async_STAR,
       anon_sym_sync_STAR, anon_sym_AMP_AMP, anon_sym_PIPE_PIPE])])]"

lemma small_run_74: "small_run 594 10499 ts_small_parse_table_74 596 10673"
  by (simp add: small_simps ts_small_parse_table_74_def)

definition ts_small_parse_table_75 :: "small_group list" where
  "ts_small_parse_table_75 = [
     (10673, 56, [(ACTIONS 3, 1, [anon_sym_SLASH_SLASH]), (ACTIONS 5, 1,
       [anon_sym_SLASH_STAR]), (ACTIONS 7, 1, [anon_sym_SLASH_SLASH_SLASH]), (ACTIONS 9, 1,
       [sym__block_comment]), (ACTIONS 11, 1, [sym__documentation_block_comment]), (ACTIONS 17,
       1, [anon_sym_LPAREN]), (ACTIONS 33, 1, [sym_void_type]), (ACTIONS 35, 1, [anon_sym_var]),
       (ACTIONS 45, 1, [anon_sym_Function]), (ACTIONS 47, 1, [anon_sym_get]), (ACTIONS 61, 1,
       [anon_sym_set]), (ACTIONS 67, 1, [anon_sym_late]), (ACTIONS 69, 1, [anon_sym_external]),
       (ACTIONS 143, 1, [anon_sym_AT]), (ACTIONS 145, 1, [anon_sym_final]), (ACTIONS 153, 1,
       [anon_sym_covariant]), (ACTIONS 1703, 1, [sym_identifier]), (ACTIONS 1707, 1,
       [anon_sym_factory]), (ACTIONS 1709, 1, [anon_sym_operator]), (ACTIONS 1711, 1,
       [anon_sym_static]), (ACTIONS 1713, 1, [sym_const_builtin]), (ACTIONS 1823, 1,
       [anon_sym_RBRACE]), (STATE 597, 1, [aux_sym_enum_body_repeat2]), (STATE 696, 1,
       [sym__metadata]), (STATE 1308, 1, [aux_sym__metadata_repeat1]), (STATE 1361, 1,
       [sym_annotation]), (STATE 1463, 1, [sym__function_builtin_identifier]), (STATE 1530, 1,
       [sym__type_name]), (STATE 1538, 1, [sym__static]), (STATE 1542, 1, [sym__operator]),
       (STATE 1605, 1, [aux_sym__function_type_tails]), (STATE 1668, 1, [sym__external]), (STATE
       1704, 1, [sym__function_type_tail]), (STATE 1796, 1, [sym__type_not_function]), (STATE
       1797, 1, [sym__external_builtin]), (STATE 1805, 1, [sym_record_type]), (STATE 1848, 1,
       [sym_function_type]), (STATE 1894, 1, [sym__external_and_static]), (STATE 1896, 1,
       [sym__type_not_void_not_function]), (STATE 1914, 1, [sym__late_builtin]), (STATE 1946, 1,
       [sym__covariant]), (STATE 1976, 1, [sym_inferred_type]), (STATE 1983, 1,
       [sym_final_builtin]), (STATE 2187, 1, [sym_constructor_signature]), (STATE 2377, 1,
       [sym__set]), (STATE 2411, 1, [sym__get]), (STATE 2417, 1, [sym_method_signature]), (STATE
       2418, 1, [sym_factory_constructor_signature]), (STATE 2437, 1, [sym__type]), (STATE 2610,
       1, [sym_constant_constructor_signature]), (STATE 2934, 1, [sym__var_or_type]), (STATE
       3049, 1, [sym_declaration]), (STATE 3523, 1, [sym__factory]), (STATE 3528, 1,
       [sym_redirecting_factory_constructor_signature]), (STATE 596, 2, [sym_comment,
       sym_documentation_comment]), (STATE 2451, 4, [sym_getter_signature, sym_setter_signature,
       sym_operator_signature, sym_function_signature])])]"

lemma small_run_75: "small_run 596 10673 ts_small_parse_table_75 597 10846"
  by (simp add: small_simps ts_small_parse_table_75_def)

definition ts_small_parse_table_76 :: "small_group list" where
  "ts_small_parse_table_76 = [
     (10846, 55, [(ACTIONS 3, 1, [anon_sym_SLASH_SLASH]), (ACTIONS 5, 1,
       [anon_sym_SLASH_STAR]), (ACTIONS 7, 1, [anon_sym_SLASH_SLASH_SLASH]), (ACTIONS 9, 1,
       [sym__block_comment]), (ACTIONS 11, 1, [sym__documentation_block_comment]), (ACTIONS 1825,
       1, [sym_identifier]), (ACTIONS 1828, 1, [anon_sym_RBRACE]), (ACTIONS 1830, 1,
       [anon_sym_LPAREN]), (ACTIONS 1833, 1, [anon_sym_AT]), (ACTIONS 1836, 1, [anon_sym_final]),
       (ACTIONS 1839, 1, [sym_void_type]), (ACTIONS 1842, 1, [anon_sym_var]), (ACTIONS 1845, 1,
       [anon_sym_covariant]), (ACTIONS 1848, 1, [anon_sym_factory]), (ACTIONS 1851, 1,
       [anon_sym_Function]), (ACTIONS 1854, 1, [anon_sym_get]), (ACTIONS 1857, 1,
       [anon_sym_operator]), (ACTIONS 1860, 1, [anon_sym_set]), (ACTIONS 1863, 1,
       [anon_sym_static]), (ACTIONS 1866, 1, [sym_const_builtin]), (ACTIONS 1869, 1,
       [anon_sym_late]), (ACTIONS 1872, 1, [anon_sym_external]), (STATE 696, 1, [sym__metadata]),
       (STATE 1308, 1, [aux_sym__metadata_repeat1]), (STATE 1361, 1, [sym_annotation]), (STATE
       1463, 1, [sym__function_builtin_identifier]), (STATE 1530, 1, [sym__type_name]), (STATE
       1538, 1, [sym__static]), (STATE 1542, 1, [sym__operator]), (STATE 1605, 1,
       [aux_sym__function_type_tails]), (STATE 1668, 1, [sym__external]), (STATE 1704, 1,
       [sym__function_type_tail]), (STATE 1796, 1, [sym__type_not_function]), (STATE 1797, 1,
       [sym__external_builtin]), (STATE 1805, 1, [sym_record_type]), (STATE 1848, 1,
       [sym_function_type]), (STATE 1894, 1, [sym__external_and_static]), (STATE 1896, 1,
       [sym__type_not_void_not_function]), (STATE 1914, 1, [sym__late_builtin]), (STATE 1946, 1,
       [sym__covariant]), (STATE 1976, 1, [sym_inferred_type]), (STATE 1983, 1,
       [sym_final_builtin]), (STATE 2187, 1, [sym_constructor_signature]), (STATE 2377, 1,
       [sym__set]), (STATE 2411, 1, [sym__get]), (STATE 2417, 1, [sym_method_signature]), (STATE
       2418, 1, [sym_factory_constructor_signature]), (STATE 2437, 1, [sym__type]), (STATE 2610,
       1, [sym_constant_constructor_signature]), (STATE 2934, 1, [sym__var_or_type]), (STATE
       3049, 1, [sym_declaration]), (STATE 3523, 1, [sym__factory]), (STATE 3528, 1,
       [sym_redirecting_factory_constructor_signature]), (STATE 597, 3, [sym_comment,
       sym_documentation_comment, aux_sym_enum_body_repeat2]), (STATE 2451, 4,
       [sym_getter_signature, sym_setter_signature, sym_operator_signature,
       sym_function_signature])])]"

lemma small_run_76: "small_run 597 10846 ts_small_parse_table_76 598 11017"
  by (simp add: small_simps ts_small_parse_table_76_def)

definition ts_small_parse_table_77 :: "small_group list" where
  "ts_small_parse_table_77 = [
     (11017, 56, [(ACTIONS 3, 1, [anon_sym_SLASH_SLASH]), (ACTIONS 5, 1,
       [anon_sym_SLASH_STAR]), (ACTIONS 7, 1, [anon_sym_SLASH_SLASH_SLASH]), (ACTIONS 9, 1,
       [sym__block_comment]), (ACTIONS 11, 1, [sym__documentation_block_comment]), (ACTIONS 17,
       1, [anon_sym_LPAREN]), (ACTIONS 33, 1, [sym_void_type]), (ACTIONS 35, 1, [anon_sym_var]),
       (ACTIONS 45, 1, [anon_sym_Function]), (ACTIONS 47, 1, [anon_sym_get]), (ACTIONS 61, 1,
       [anon_sym_set]), (ACTIONS 67, 1, [anon_sym_late]), (ACTIONS 69, 1, [anon_sym_external]),
       (ACTIONS 143, 1, [anon_sym_AT]), (ACTIONS 145, 1, [anon_sym_final]), (ACTIONS 153, 1,
       [anon_sym_covariant]), (ACTIONS 1703, 1, [sym_identifier]), (ACTIONS 1707, 1,
       [anon_sym_factory]), (ACTIONS 1709, 1, [anon_sym_operator]), (ACTIONS 1711, 1,
       [anon_sym_static]), (ACTIONS 1713, 1, [sym_const_builtin]), (ACTIONS 1875, 1,
       [anon_sym_RBRACE]), (STATE 589, 1, [aux_sym_extension_body_repeat1]), (STATE 685, 1,
       [sym__metadata]), (STATE 1308, 1, [aux_sym__metadata_repeat1]), (STATE 1361, 1,
       [sym_annotation]), (STATE 1463, 1, [sym__function_builtin_identifier]), (STATE 1530, 1,
       [sym__type_name]), (STATE 1538, 1, [sym__static]), (STATE 1542, 1, [sym__operator]),
       (STATE 1605, 1, [aux_sym__function_type_tails]), (STATE 1668, 1, [sym__external]), (STATE
       1704, 1, [sym__function_type_tail]), (STATE 1796, 1, [sym__type_not_function]), (STATE
       1797, 1, [sym__external_builtin]), (STATE 1805, 1, [sym_record_type]), (STATE 1848, 1,
       [sym_function_type]), (STATE 1894, 1, [sym__external_and_static]), (STATE 1896, 1,
       [sym__type_not_void_not_function]), (STATE 1914, 1, [sym__late_builtin]), (STATE 1946, 1,
       [sym__covariant]), (STATE 1976, 1, [sym_inferred_type]), (STATE 1983, 1,
       [sym_final_builtin]), (STATE 2187, 1, [sym_constructor_signature]), (STATE 2370, 1,
       [sym_method_signature]), (STATE 2377, 1, [sym__set]), (STATE 2411, 1, [sym__get]), (STATE
       2418, 1, [sym_factory_constructor_signature]), (STATE 2437, 1, [sym__type]), (STATE 2610,
       1, [sym_constant_constructor_signature]), (STATE 2934, 1, [sym__var_or_type]), (STATE
       3265, 1, [sym_declaration]), (STATE 3523, 1, [sym__factory]), (STATE 3528, 1,
       [sym_redirecting_factory_constructor_signature]), (STATE 598, 2, [sym_comment,
       sym_documentation_comment]), (STATE 2451, 4, [sym_getter_signature, sym_setter_signature,
       sym_operator_signature, sym_function_signature])])]"

lemma small_run_77: "small_run 598 11017 ts_small_parse_table_77 599 11190"
  by (simp add: small_simps ts_small_parse_table_77_def)

definition ts_small_parse_table_78 :: "small_group list" where
  "ts_small_parse_table_78 = [
     (11190, 56, [(ACTIONS 3, 1, [anon_sym_SLASH_SLASH]), (ACTIONS 5, 1,
       [anon_sym_SLASH_STAR]), (ACTIONS 7, 1, [anon_sym_SLASH_SLASH_SLASH]), (ACTIONS 9, 1,
       [sym__block_comment]), (ACTIONS 11, 1, [sym__documentation_block_comment]), (ACTIONS 17,
       1, [anon_sym_LPAREN]), (ACTIONS 33, 1, [sym_void_type]), (ACTIONS 35, 1, [anon_sym_var]),
       (ACTIONS 45, 1, [anon_sym_Function]), (ACTIONS 47, 1, [anon_sym_get]), (ACTIONS 61, 1,
       [anon_sym_set]), (ACTIONS 67, 1, [anon_sym_late]), (ACTIONS 69, 1, [anon_sym_external]),
       (ACTIONS 143, 1, [anon_sym_AT]), (ACTIONS 145, 1, [anon_sym_final]), (ACTIONS 153, 1,
       [anon_sym_covariant]), (ACTIONS 1703, 1, [sym_identifier]), (ACTIONS 1707, 1,
       [anon_sym_factory]), (ACTIONS 1709, 1, [anon_sym_operator]), (ACTIONS 1711, 1,
       [anon_sym_static]), (ACTIONS 1713, 1, [sym_const_builtin]), (ACTIONS 1877, 1,
       [anon_sym_RBRACE]), (STATE 597, 1, [aux_sym_enum_body_repeat2]), (STATE 696, 1,
       [sym__metadata]), (STATE 1308, 1, [aux_sym__metadata_repeat1]), (STATE 1361, 1,
       [sym_annotation]), (STATE 1463, 1, [sym__function_builtin_identifier]), (STATE 1530, 1,
       [sym__type_name]), (STATE 1538, 1, [sym__static]), (STATE 1542, 1, [sym__operator]),
       (STATE 1605, 1, [aux_sym__function_type_tails]), (STATE 1668, 1, [sym__external]), (STATE
       1704, 1, [sym__function_type_tail]), (STATE 1796, 1, [sym__type_not_function]), (STATE
       1797, 1, [sym__external_builtin]), (STATE 1805, 1, [sym_record_type]), (STATE 1848, 1,
       [sym_function_type]), (STATE 1894, 1, [sym__external_and_static]), (STATE 1896, 1,
       [sym__type_not_void_not_function]), (STATE 1914, 1, [sym__late_builtin]), (STATE 1946, 1,
       [sym__covariant]), (STATE 1976, 1, [sym_inferred_type]), (STATE 1983, 1,
       [sym_final_builtin]), (STATE 2187, 1, [sym_constructor_signature]), (STATE 2377, 1,
       [sym__set]), (STATE 2411, 1, [sym__get]), (STATE 2417, 1, [sym_method_signature]), (STATE
       2418, 1, [sym_factory_constructor_signature]), (STATE 2437, 1, [sym__type]), (STATE 2610,
       1, [sym_constant_constructor_signature]), (STATE 2934, 1, [sym__var_or_type]), (STATE
       3049, 1, [sym_declaration]), (STATE 3523, 1, [sym__factory]), (STATE 3528, 1,
       [sym_redirecting_factory_constructor_signature]), (STATE 599, 2, [sym_comment,
       sym_documentation_comment]), (STATE 2451, 4, [sym_getter_signature, sym_setter_signature,
       sym_operator_signature, sym_function_signature])])]"

lemma small_run_78: "small_run 599 11190 ts_small_parse_table_78 600 11363"
  by (simp add: small_simps ts_small_parse_table_78_def)

definition ts_small_parse_table_79 :: "small_group list" where
  "ts_small_parse_table_79 = [
     (11363, 8, [(ACTIONS 3, 1, [anon_sym_SLASH_SLASH]), (ACTIONS 5, 1, [anon_sym_SLASH_STAR]),
       (ACTIONS 7, 1, [anon_sym_SLASH_SLASH_SLASH]), (ACTIONS 9, 1, [sym__block_comment]),
       (ACTIONS 11, 1, [sym__documentation_block_comment]), (STATE 600, 2, [sym_comment,
       sym_documentation_comment]), (ACTIONS 1881, 19, [anon_sym_EQ, anon_sym_QMARK_QMARK,
       anon_sym_QMARK, anon_sym_LT, anon_sym_GT, anon_sym_PIPE, anon_sym_CARET, anon_sym_AMP,
       anon_sym_LT_LT, anon_sym_GT_GT, anon_sym_GT_GT_GT, sym__additive_operator, anon_sym_STAR,
       anon_sym_SLASH, anon_sym_PERCENT, anon_sym_TILDE_SLASH, anon_sym_BANG, anon_sym_DOT,
       anon_sym_QMARK_DOT]), (ACTIONS 1879, 34, [anon_sym_RBRACE, anon_sym_LBRACK,
       anon_sym_COMMA, anon_sym_RBRACK, anon_sym_COLON, anon_sym_LPAREN, anon_sym_RPAREN,
       anon_sym_PLUS_EQ, anon_sym_DASH_EQ, anon_sym_STAR_EQ, anon_sym_SLASH_EQ,
       anon_sym_PERCENT_EQ, anon_sym_TILDE_SLASH_EQ, anon_sym_LT_LT_EQ, anon_sym_GT_GT_EQ,
       anon_sym_GT_GT_GT_EQ, anon_sym_AMP_EQ, anon_sym_CARET_EQ, anon_sym_PIPE_EQ,
       anon_sym_QMARK_QMARK_EQ, sym_equality_operator, anon_sym_LT_EQ, anon_sym_GT_EQ,
       anon_sym_is, anon_sym_as, anon_sym_DOT_DOT, anon_sym_QMARK_DOT_DOT, anon_sym_SEMI,
       anon_sym_EQ_GT, anon_sym_when, anon_sym_case, anon_sym_else, anon_sym_AMP_AMP,
       anon_sym_PIPE_PIPE])])]"

lemma small_run_79: "small_run 600 11363 ts_small_parse_table_79 601 11440"
  by (simp add: small_simps ts_small_parse_table_79_def)

definition ts_small_parse_table_80 :: "small_group list" where
  "ts_small_parse_table_80 = [
     (11440, 56, [(ACTIONS 3, 1, [anon_sym_SLASH_SLASH]), (ACTIONS 5, 1,
       [anon_sym_SLASH_STAR]), (ACTIONS 7, 1, [anon_sym_SLASH_SLASH_SLASH]), (ACTIONS 9, 1,
       [sym__block_comment]), (ACTIONS 11, 1, [sym__documentation_block_comment]), (ACTIONS 17,
       1, [anon_sym_LPAREN]), (ACTIONS 33, 1, [sym_void_type]), (ACTIONS 35, 1, [anon_sym_var]),
       (ACTIONS 45, 1, [anon_sym_Function]), (ACTIONS 47, 1, [anon_sym_get]), (ACTIONS 61, 1,
       [anon_sym_set]), (ACTIONS 67, 1, [anon_sym_late]), (ACTIONS 69, 1, [anon_sym_external]),
       (ACTIONS 143, 1, [anon_sym_AT]), (ACTIONS 145, 1, [anon_sym_final]), (ACTIONS 153, 1,
       [anon_sym_covariant]), (ACTIONS 1703, 1, [sym_identifier]), (ACTIONS 1707, 1,
       [anon_sym_factory]), (ACTIONS 1709, 1, [anon_sym_operator]), (ACTIONS 1711, 1,
       [anon_sym_static]), (ACTIONS 1713, 1, [sym_const_builtin]), (ACTIONS 1883, 1,
       [anon_sym_RBRACE]), (STATE 588, 1, [aux_sym_enum_body_repeat2]), (STATE 696, 1,
       [sym__metadata]), (STATE 1308, 1, [aux_sym__metadata_repeat1]), (STATE 1361, 1,
       [sym_annotation]), (STATE 1463, 1, [sym__function_builtin_identifier]), (STATE 1530, 1,
       [sym__type_name]), (STATE 1538, 1, [sym__static]), (STATE 1542, 1, [sym__operator]),
       (STATE 1605, 1, [aux_sym__function_type_tails]), (STATE 1668, 1, [sym__external]), (STATE
       1704, 1, [sym__function_type_tail]), (STATE 1796, 1, [sym__type_not_function]), (STATE
       1797, 1, [sym__external_builtin]), (STATE 1805, 1, [sym_record_type]), (STATE 1848, 1,
       [sym_function_type]), (STATE 1894, 1, [sym__external_and_static]), (STATE 1896, 1,
       [sym__type_not_void_not_function]), (STATE 1914, 1, [sym__late_builtin]), (STATE 1946, 1,
       [sym__covariant]), (STATE 1976, 1, [sym_inferred_type]), (STATE 1983, 1,
       [sym_final_builtin]), (STATE 2187, 1, [sym_constructor_signature]), (STATE 2377, 1,
       [sym__set]), (STATE 2411, 1, [sym__get]), (STATE 2417, 1, [sym_method_signature]), (STATE
       2418, 1, [sym_factory_constructor_signature]), (STATE 2437, 1, [sym__type]), (STATE 2610,
       1, [sym_constant_constructor_signature]), (STATE 2934, 1, [sym__var_or_type]), (STATE
       3049, 1, [sym_declaration]), (STATE 3523, 1, [sym__factory]), (STATE 3528, 1,
       [sym_redirecting_factory_constructor_signature]), (STATE 601, 2, [sym_comment,
       sym_documentation_comment]), (STATE 2451, 4, [sym_getter_signature, sym_setter_signature,
       sym_operator_signature, sym_function_signature])])]"

lemma small_run_80: "small_run 601 11440 ts_small_parse_table_80 602 11613"
  by (simp add: small_simps ts_small_parse_table_80_def)

definition ts_small_parse_table_81 :: "small_group list" where
  "ts_small_parse_table_81 = [
     (11613, 8, [(ACTIONS 3, 1, [anon_sym_SLASH_SLASH]), (ACTIONS 5, 1, [anon_sym_SLASH_STAR]),
       (ACTIONS 7, 1, [anon_sym_SLASH_SLASH_SLASH]), (ACTIONS 9, 1, [sym__block_comment]),
       (ACTIONS 11, 1, [sym__documentation_block_comment]), (STATE 602, 2, [sym_comment,
       sym_documentation_comment]), (ACTIONS 1670, 19, [anon_sym_EQ, anon_sym_QMARK_QMARK,
       anon_sym_QMARK, anon_sym_LT, anon_sym_GT, anon_sym_PIPE, anon_sym_CARET, anon_sym_AMP,
       anon_sym_LT_LT, anon_sym_GT_GT, anon_sym_GT_GT_GT, sym__additive_operator, anon_sym_STAR,
       anon_sym_SLASH, anon_sym_PERCENT, anon_sym_TILDE_SLASH, anon_sym_BANG, anon_sym_DOT,
       anon_sym_QMARK_DOT]), (ACTIONS 1668, 34, [anon_sym_RBRACE, anon_sym_LBRACK,
       anon_sym_COMMA, anon_sym_RBRACK, anon_sym_COLON, anon_sym_LPAREN, anon_sym_RPAREN,
       anon_sym_PLUS_EQ, anon_sym_DASH_EQ, anon_sym_STAR_EQ, anon_sym_SLASH_EQ,
       anon_sym_PERCENT_EQ, anon_sym_TILDE_SLASH_EQ, anon_sym_LT_LT_EQ, anon_sym_GT_GT_EQ,
       anon_sym_GT_GT_GT_EQ, anon_sym_AMP_EQ, anon_sym_CARET_EQ, anon_sym_PIPE_EQ,
       anon_sym_QMARK_QMARK_EQ, sym_equality_operator, anon_sym_LT_EQ, anon_sym_GT_EQ,
       anon_sym_is, anon_sym_as, anon_sym_DOT_DOT, anon_sym_QMARK_DOT_DOT, anon_sym_SEMI,
       anon_sym_EQ_GT, anon_sym_when, anon_sym_case, anon_sym_else, anon_sym_AMP_AMP,
       anon_sym_PIPE_PIPE])])]"

lemma small_run_81: "small_run 602 11613 ts_small_parse_table_81 603 11690"
  by (simp add: small_simps ts_small_parse_table_81_def)

definition ts_small_parse_table_82 :: "small_group list" where
  "ts_small_parse_table_82 = [
     (11690, 56, [(ACTIONS 3, 1, [anon_sym_SLASH_SLASH]), (ACTIONS 5, 1,
       [anon_sym_SLASH_STAR]), (ACTIONS 7, 1, [anon_sym_SLASH_SLASH_SLASH]), (ACTIONS 9, 1,
       [sym__block_comment]), (ACTIONS 11, 1, [sym__documentation_block_comment]), (ACTIONS 17,
       1, [anon_sym_LPAREN]), (ACTIONS 33, 1, [sym_void_type]), (ACTIONS 35, 1, [anon_sym_var]),
       (ACTIONS 45, 1, [anon_sym_Function]), (ACTIONS 47, 1, [anon_sym_get]), (ACTIONS 61, 1,
       [anon_sym_set]), (ACTIONS 67, 1, [anon_sym_late]), (ACTIONS 69, 1, [anon_sym_external]),
       (ACTIONS 143, 1, [anon_sym_AT]), (ACTIONS 145, 1, [anon_sym_final]), (ACTIONS 153, 1,
       [anon_sym_covariant]), (ACTIONS 1703, 1, [sym_identifier]), (ACTIONS 1707, 1,
       [anon_sym_factory]), (ACTIONS 1709, 1, [anon_sym_operator]), (ACTIONS 1711, 1,
       [anon_sym_static]), (ACTIONS 1713, 1, [sym_const_builtin]), (ACTIONS 1877, 1,
       [anon_sym_RBRACE]), (STATE 586, 1, [aux_sym_enum_body_repeat2]), (STATE 696, 1,
       [sym__metadata]), (STATE 1308, 1, [aux_sym__metadata_repeat1]), (STATE 1361, 1,
       [sym_annotation]), (STATE 1463, 1, [sym__function_builtin_identifier]), (STATE 1530, 1,
       [sym__type_name]), (STATE 1538, 1, [sym__static]), (STATE 1542, 1, [sym__operator]),
       (STATE 1605, 1, [aux_sym__function_type_tails]), (STATE 1668, 1, [sym__external]), (STATE
       1704, 1, [sym__function_type_tail]), (STATE 1796, 1, [sym__type_not_function]), (STATE
       1797, 1, [sym__external_builtin]), (STATE 1805, 1, [sym_record_type]), (STATE 1848, 1,
       [sym_function_type]), (STATE 1894, 1, [sym__external_and_static]), (STATE 1896, 1,
       [sym__type_not_void_not_function]), (STATE 1914, 1, [sym__late_builtin]), (STATE 1946, 1,
       [sym__covariant]), (STATE 1976, 1, [sym_inferred_type]), (STATE 1983, 1,
       [sym_final_builtin]), (STATE 2187, 1, [sym_constructor_signature]), (STATE 2377, 1,
       [sym__set]), (STATE 2411, 1, [sym__get]), (STATE 2417, 1, [sym_method_signature]), (STATE
       2418, 1, [sym_factory_constructor_signature]), (STATE 2437, 1, [sym__type]), (STATE 2610,
       1, [sym_constant_constructor_signature]), (STATE 2934, 1, [sym__var_or_type]), (STATE
       3049, 1, [sym_declaration]), (STATE 3523, 1, [sym__factory]), (STATE 3528, 1,
       [sym_redirecting_factory_constructor_signature]), (STATE 603, 2, [sym_comment,
       sym_documentation_comment]), (STATE 2451, 4, [sym_getter_signature, sym_setter_signature,
       sym_operator_signature, sym_function_signature])])]"

lemma small_run_82: "small_run 603 11690 ts_small_parse_table_82 604 11863"
  by (simp add: small_simps ts_small_parse_table_82_def)

definition ts_small_parse_table_83 :: "small_group list" where
  "ts_small_parse_table_83 = [
     (11863, 14, [(ACTIONS 3, 1, [anon_sym_SLASH_SLASH]), (ACTIONS 5, 1,
       [anon_sym_SLASH_STAR]), (ACTIONS 7, 1, [anon_sym_SLASH_SLASH_SLASH]), (ACTIONS 9, 1,
       [sym__block_comment]), (ACTIONS 11, 1, [sym__documentation_block_comment]), (ACTIONS 1328,
       1, [anon_sym_EQ]), (ACTIONS 1334, 1, [anon_sym_LT]), (ACTIONS 1341, 1, [anon_sym_DOT]),
       (ACTIONS 1516, 1, [anon_sym_LPAREN]), (STATE 1612, 1, [sym__type_dot_identifier]), (STATE
       604, 2, [sym_comment, sym_documentation_comment]), (ACTIONS 1330, 14, [anon_sym_PLUS_EQ,
       anon_sym_DASH_EQ, anon_sym_STAR_EQ, anon_sym_SLASH_EQ, anon_sym_PERCENT_EQ,
       anon_sym_TILDE_SLASH_EQ, anon_sym_LT_LT_EQ, anon_sym_GT_GT_EQ, anon_sym_GT_GT_GT_EQ,
       anon_sym_AMP_EQ, anon_sym_CARET_EQ, anon_sym_PIPE_EQ, anon_sym_QMARK_QMARK_EQ,
       sym_increment_operator]), (ACTIONS 1322, 15, [anon_sym_LBRACE, anon_sym_LBRACK,
       anon_sym_COMMA, sym_equality_operator, anon_sym_LT_EQ, anon_sym_GT_EQ, anon_sym_is,
       anon_sym_DOT_DOT, anon_sym_QMARK_DOT_DOT, anon_sym_SEMI, anon_sym_EQ_GT,
       anon_sym_async_STAR, anon_sym_sync_STAR, anon_sym_AMP_AMP, anon_sym_PIPE_PIPE]), (ACTIONS
       1332, 18, [anon_sym_QMARK_QMARK, anon_sym_QMARK, anon_sym_GT, anon_sym_PIPE,
       anon_sym_CARET, anon_sym_AMP, anon_sym_LT_LT, anon_sym_GT_GT, anon_sym_GT_GT_GT,
       sym__additive_operator, anon_sym_STAR, anon_sym_SLASH, anon_sym_PERCENT,
       anon_sym_TILDE_SLASH, anon_sym_BANG, anon_sym_as, anon_sym_QMARK_DOT, anon_sym_async])]),
     (11951, 13, [(ACTIONS 3, 1, [anon_sym_SLASH_SLASH]), (ACTIONS 5, 1,
       [anon_sym_SLASH_STAR]), (ACTIONS 7, 1, [anon_sym_SLASH_SLASH_SLASH]), (ACTIONS 9, 1,
       [sym__block_comment]), (ACTIONS 11, 1, [sym__documentation_block_comment]), (ACTIONS 1328,
       1, [anon_sym_EQ]), (ACTIONS 1334, 1, [anon_sym_LT]), (ACTIONS 1341, 1, [anon_sym_DOT]),
       (STATE 1612, 1, [sym__type_dot_identifier]), (STATE 605, 2, [sym_comment,
       sym_documentation_comment]), (ACTIONS 1330, 14, [anon_sym_PLUS_EQ, anon_sym_DASH_EQ,
       anon_sym_STAR_EQ, anon_sym_SLASH_EQ, anon_sym_PERCENT_EQ, anon_sym_TILDE_SLASH_EQ,
       anon_sym_LT_LT_EQ, anon_sym_GT_GT_EQ, anon_sym_GT_GT_GT_EQ, anon_sym_AMP_EQ,
       anon_sym_CARET_EQ, anon_sym_PIPE_EQ, anon_sym_QMARK_QMARK_EQ, sym_increment_operator]),
       (ACTIONS 1322, 16, [anon_sym_LBRACE, anon_sym_LBRACK, anon_sym_COMMA, anon_sym_LPAREN,
       sym_equality_operator, anon_sym_LT_EQ, anon_sym_GT_EQ, anon_sym_is, anon_sym_DOT_DOT,
       anon_sym_QMARK_DOT_DOT, anon_sym_SEMI, anon_sym_EQ_GT, anon_sym_async_STAR,
       anon_sym_sync_STAR, anon_sym_AMP_AMP, anon_sym_PIPE_PIPE]), (ACTIONS 1332, 18,
       [anon_sym_QMARK_QMARK, anon_sym_QMARK, anon_sym_GT, anon_sym_PIPE, anon_sym_CARET,
       anon_sym_AMP, anon_sym_LT_LT, anon_sym_GT_GT, anon_sym_GT_GT_GT, sym__additive_operator,
       anon_sym_STAR, anon_sym_SLASH, anon_sym_PERCENT, anon_sym_TILDE_SLASH, anon_sym_BANG,
       anon_sym_as, anon_sym_QMARK_DOT, anon_sym_async])])]"

lemma small_run_83: "small_run 604 11863 ts_small_parse_table_83 606 12037"
  by (simp add: small_simps ts_small_parse_table_83_def)

definition ts_small_parse_table_84 :: "small_group list" where
  "ts_small_parse_table_84 = [
     (12037, 8, [(ACTIONS 3, 1, [anon_sym_SLASH_SLASH]), (ACTIONS 5, 1, [anon_sym_SLASH_STAR]),
       (ACTIONS 7, 1, [anon_sym_SLASH_SLASH_SLASH]), (ACTIONS 9, 1, [sym__block_comment]),
       (ACTIONS 11, 1, [sym__documentation_block_comment]), (STATE 606, 2, [sym_comment,
       sym_documentation_comment]), (ACTIONS 1887, 15, [anon_sym_POUND, sym_hex_integer_literal,
       anon_sym_DQUOTE_DQUOTE_DQUOTE, anon_sym_SQUOTE_SQUOTE_SQUOTE,
       anon_sym_r_DQUOTE_DQUOTE_DQUOTE, anon_sym_r_SQUOTE_SQUOTE_SQUOTE, anon_sym_LBRACE,
       anon_sym_LBRACK, anon_sym_LPAREN, anon_sym_LT, sym_increment_operator,
       anon_sym_DOT_DOT_DOT, anon_sym_BANG, anon_sym_TILDE, anon_sym_AT]), (ACTIONS 1885, 37,
       [sym_decimal_integer_literal, sym_decimal_floating_point_literal, anon_sym_true,
       anon_sym_false, anon_sym_DQUOTE, anon_sym_SQUOTE, anon_sym_r_DQUOTE, anon_sym_r_SQUOTE,
       anon_sym_null, anon_sym_throw, sym_minus_operator, anon_sym_await, anon_sym_switch,
       anon_sym_do, anon_sym_while, anon_sym_continue, anon_sym_yield, anon_sym_return,
       anon_sym_try, anon_sym_if, anon_sym_for, anon_sym_final, sym_void_type, anon_sym_var,
       sym_break_builtin, sym_assert_builtin, sym_rethrow_builtin, anon_sym_covariant,
       anon_sym_Function, anon_sym_get, anon_sym_set, anon_sym_new, sym_const_builtin,
       anon_sym_late, anon_sym_this, anon_sym_super, sym_identifier])]),
     (12113, 8, [(ACTIONS 3, 1, [anon_sym_SLASH_SLASH]), (ACTIONS 5, 1, [anon_sym_SLASH_STAR]),
       (ACTIONS 7, 1, [anon_sym_SLASH_SLASH_SLASH]), (ACTIONS 9, 1, [sym__block_comment]),
       (ACTIONS 11, 1, [sym__documentation_block_comment]), (STATE 607, 2, [sym_comment,
       sym_documentation_comment]), (ACTIONS 1645, 21, [anon_sym_EQ, anon_sym_QMARK_QMARK,
       anon_sym_QMARK, anon_sym_LT, anon_sym_GT, anon_sym_PIPE, anon_sym_CARET, anon_sym_AMP,
       anon_sym_LT_LT, anon_sym_GT_GT, anon_sym_GT_GT_GT, sym__additive_operator, anon_sym_STAR,
       anon_sym_SLASH, anon_sym_PERCENT, anon_sym_TILDE_SLASH, anon_sym_BANG, anon_sym_as,
       anon_sym_DOT, anon_sym_QMARK_DOT, anon_sym_async]), (ACTIONS 1643, 30, [anon_sym_LBRACE,
       anon_sym_LBRACK, anon_sym_COMMA, anon_sym_LPAREN, anon_sym_PLUS_EQ, anon_sym_DASH_EQ,
       anon_sym_STAR_EQ, anon_sym_SLASH_EQ, anon_sym_PERCENT_EQ, anon_sym_TILDE_SLASH_EQ,
       anon_sym_LT_LT_EQ, anon_sym_GT_GT_EQ, anon_sym_GT_GT_GT_EQ, anon_sym_AMP_EQ,
       anon_sym_CARET_EQ, anon_sym_PIPE_EQ, anon_sym_QMARK_QMARK_EQ, sym_equality_operator,
       anon_sym_LT_EQ, anon_sym_GT_EQ, sym_increment_operator, anon_sym_is, anon_sym_DOT_DOT,
       anon_sym_QMARK_DOT_DOT, anon_sym_SEMI, anon_sym_EQ_GT, anon_sym_async_STAR,
       anon_sym_sync_STAR, anon_sym_AMP_AMP, anon_sym_PIPE_PIPE])])]"

lemma small_run_84: "small_run 606 12037 ts_small_parse_table_84 608 12188"
  by (simp add: small_simps ts_small_parse_table_84_def)

definition ts_small_parse_table_85 :: "small_group list" where
  "ts_small_parse_table_85 = [
     (12188, 8, [(ACTIONS 3, 1, [anon_sym_SLASH_SLASH]), (ACTIONS 5, 1, [anon_sym_SLASH_STAR]),
       (ACTIONS 7, 1, [anon_sym_SLASH_SLASH_SLASH]), (ACTIONS 9, 1, [sym__block_comment]),
       (ACTIONS 11, 1, [sym__documentation_block_comment]), (STATE 608, 2, [sym_comment,
       sym_documentation_comment]), (ACTIONS 1889, 14, [anon_sym_DQUOTE, anon_sym_SQUOTE,
       anon_sym_r_DQUOTE, anon_sym_r_SQUOTE, anon_sym_QMARK, anon_sym_LT, anon_sym_GT,
       anon_sym_PIPE, anon_sym_AMP, anon_sym_GT_GT, anon_sym_SLASH, anon_sym_BANG, anon_sym_DOT,
       anon_sym_QMARK_DOT]), (ACTIONS 1891, 37, [anon_sym_DQUOTE_DQUOTE_DQUOTE,
       anon_sym_SQUOTE_SQUOTE_SQUOTE, anon_sym_r_DQUOTE_DQUOTE_DQUOTE,
       anon_sym_r_SQUOTE_SQUOTE_SQUOTE, anon_sym_RBRACE, anon_sym_LBRACK, anon_sym_COMMA,
       anon_sym_RBRACK, anon_sym_COLON, anon_sym_LPAREN, anon_sym_RPAREN, anon_sym_QMARK_QMARK,
       sym_equality_operator, anon_sym_LT_EQ, anon_sym_GT_EQ, anon_sym_CARET, anon_sym_LT_LT,
       anon_sym_GT_GT_GT, sym__additive_operator, anon_sym_STAR, anon_sym_PERCENT,
       anon_sym_TILDE_SLASH, anon_sym_is, anon_sym_as, anon_sym_DOT_DOT, anon_sym_QMARK_DOT_DOT,
       anon_sym_SEMI, anon_sym_EQ_GT, anon_sym_when, anon_sym_if, anon_sym_case, anon_sym_else,
       anon_sym_show, anon_sym_hide, anon_sym_deferred, anon_sym_AMP_AMP, anon_sym_PIPE_PIPE])]),
     (12263, 18, [(ACTIONS 3, 1, [anon_sym_SLASH_SLASH]), (ACTIONS 5, 1,
       [anon_sym_SLASH_STAR]), (ACTIONS 7, 1, [anon_sym_SLASH_SLASH_SLASH]), (ACTIONS 9, 1,
       [sym__block_comment]), (ACTIONS 11, 1, [sym__documentation_block_comment]), (ACTIONS 786,
       1, [anon_sym_DQUOTE]), (ACTIONS 788, 1, [anon_sym_SQUOTE]), (ACTIONS 790, 1,
       [anon_sym_DQUOTE_DQUOTE_DQUOTE]), (ACTIONS 792, 1, [anon_sym_SQUOTE_SQUOTE_SQUOTE]),
       (ACTIONS 794, 1, [anon_sym_r_DQUOTE]), (ACTIONS 796, 1, [anon_sym_r_SQUOTE]), (ACTIONS
       798, 1, [anon_sym_r_DQUOTE_DQUOTE_DQUOTE]), (ACTIONS 800, 1,
       [anon_sym_r_SQUOTE_SQUOTE_SQUOTE]), (STATE 610, 1, [aux_sym_string_literal_repeat1]),
       (STATE 609, 2, [sym_comment, sym_documentation_comment]), (ACTIONS 1187, 8,
       [anon_sym_QMARK, anon_sym_LT, anon_sym_GT, anon_sym_PIPE, anon_sym_AMP, anon_sym_GT_GT,
       anon_sym_SLASH, anon_sym_BANG]), (STATE 799, 8, [sym__string_literal_double_quotes,
       sym__string_literal_single_quotes, sym__string_literal_double_quotes_multiple,
       sym__string_literal_single_quotes_multiple, sym__raw_string_literal_double_quotes,
       sym__raw_string_literal_single_quotes, sym__raw_string_literal_double_quotes_multiple,
       sym__raw_string_literal_single_quotes_multiple]), (ACTIONS 1185, 26, [anon_sym_RBRACE,
       anon_sym_LBRACK, anon_sym_COMMA, anon_sym_RBRACK, anon_sym_COLON, anon_sym_LPAREN,
       anon_sym_RPAREN, anon_sym_QMARK_QMARK, sym_equality_operator, anon_sym_LT_EQ,
       anon_sym_GT_EQ, anon_sym_CARET, anon_sym_LT_LT, anon_sym_GT_GT_GT, sym__additive_operator,
       anon_sym_STAR, anon_sym_PERCENT, anon_sym_TILDE_SLASH, anon_sym_is, anon_sym_as,
       anon_sym_DOT, anon_sym_QMARK_DOT, anon_sym_EQ_GT, anon_sym_when, anon_sym_AMP_AMP,
       anon_sym_PIPE_PIPE])])]"

lemma small_run_85: "small_run 608 12188 ts_small_parse_table_85 610 12358"
  by (simp add: small_simps ts_small_parse_table_85_def)

definition ts_small_parse_table_86 :: "small_group list" where
  "ts_small_parse_table_86 = [
     (12358, 17, [(ACTIONS 3, 1, [anon_sym_SLASH_SLASH]), (ACTIONS 5, 1,
       [anon_sym_SLASH_STAR]), (ACTIONS 7, 1, [anon_sym_SLASH_SLASH_SLASH]), (ACTIONS 9, 1,
       [sym__block_comment]), (ACTIONS 11, 1, [sym__documentation_block_comment]), (ACTIONS 1893,
       1, [anon_sym_DQUOTE]), (ACTIONS 1896, 1, [anon_sym_SQUOTE]), (ACTIONS 1899, 1,
       [anon_sym_DQUOTE_DQUOTE_DQUOTE]), (ACTIONS 1902, 1, [anon_sym_SQUOTE_SQUOTE_SQUOTE]),
       (ACTIONS 1905, 1, [anon_sym_r_DQUOTE]), (ACTIONS 1908, 1, [anon_sym_r_SQUOTE]), (ACTIONS
       1911, 1, [anon_sym_r_DQUOTE_DQUOTE_DQUOTE]), (ACTIONS 1914, 1,
       [anon_sym_r_SQUOTE_SQUOTE_SQUOTE]), (STATE 610, 3, [sym_comment,
       sym_documentation_comment, aux_sym_string_literal_repeat1]), (ACTIONS 1183, 8,
       [anon_sym_QMARK, anon_sym_LT, anon_sym_GT, anon_sym_PIPE, anon_sym_AMP, anon_sym_GT_GT,
       anon_sym_SLASH, anon_sym_BANG]), (STATE 799, 8, [sym__string_literal_double_quotes,
       sym__string_literal_single_quotes, sym__string_literal_double_quotes_multiple,
       sym__string_literal_single_quotes_multiple, sym__raw_string_literal_double_quotes,
       sym__raw_string_literal_single_quotes, sym__raw_string_literal_double_quotes_multiple,
       sym__raw_string_literal_single_quotes_multiple]), (ACTIONS 1181, 26, [anon_sym_RBRACE,
       anon_sym_LBRACK, anon_sym_COMMA, anon_sym_RBRACK, anon_sym_COLON, anon_sym_LPAREN,
       anon_sym_RPAREN, anon_sym_QMARK_QMARK, sym_equality_operator, anon_sym_LT_EQ,
       anon_sym_GT_EQ, anon_sym_CARET, anon_sym_LT_LT, anon_sym_GT_GT_GT, sym__additive_operator,
       anon_sym_STAR, anon_sym_PERCENT, anon_sym_TILDE_SLASH, anon_sym_is, anon_sym_as,
       anon_sym_DOT, anon_sym_QMARK_DOT, anon_sym_EQ_GT, anon_sym_when, anon_sym_AMP_AMP,
       anon_sym_PIPE_PIPE])]),
     (12451, 8, [(ACTIONS 3, 1, [anon_sym_SLASH_SLASH]), (ACTIONS 5, 1, [anon_sym_SLASH_STAR]),
       (ACTIONS 7, 1, [anon_sym_SLASH_SLASH_SLASH]), (ACTIONS 9, 1, [sym__block_comment]),
       (ACTIONS 11, 1, [sym__documentation_block_comment]), (STATE 611, 2, [sym_comment,
       sym_documentation_comment]), (ACTIONS 1697, 21, [anon_sym_EQ, anon_sym_QMARK_QMARK,
       anon_sym_QMARK, anon_sym_LT, anon_sym_GT, anon_sym_PIPE, anon_sym_CARET, anon_sym_AMP,
       anon_sym_LT_LT, anon_sym_GT_GT, anon_sym_GT_GT_GT, sym__additive_operator, anon_sym_STAR,
       anon_sym_SLASH, anon_sym_PERCENT, anon_sym_TILDE_SLASH, anon_sym_BANG, anon_sym_as,
       anon_sym_DOT, anon_sym_QMARK_DOT, anon_sym_async]), (ACTIONS 1695, 30, [anon_sym_LBRACE,
       anon_sym_LBRACK, anon_sym_COMMA, anon_sym_LPAREN, anon_sym_PLUS_EQ, anon_sym_DASH_EQ,
       anon_sym_STAR_EQ, anon_sym_SLASH_EQ, anon_sym_PERCENT_EQ, anon_sym_TILDE_SLASH_EQ,
       anon_sym_LT_LT_EQ, anon_sym_GT_GT_EQ, anon_sym_GT_GT_GT_EQ, anon_sym_AMP_EQ,
       anon_sym_CARET_EQ, anon_sym_PIPE_EQ, anon_sym_QMARK_QMARK_EQ, sym_equality_operator,
       anon_sym_LT_EQ, anon_sym_GT_EQ, sym_increment_operator, anon_sym_is, anon_sym_DOT_DOT,
       anon_sym_QMARK_DOT_DOT, anon_sym_SEMI, anon_sym_EQ_GT, anon_sym_async_STAR,
       anon_sym_sync_STAR, anon_sym_AMP_AMP, anon_sym_PIPE_PIPE])])]"

lemma small_run_86: "small_run 610 12358 ts_small_parse_table_86 612 12526"
  by (simp add: small_simps ts_small_parse_table_86_def)

definition ts_small_parse_table_87 :: "small_group list" where
  "ts_small_parse_table_87 = [
     (12526, 8, [(ACTIONS 3, 1, [anon_sym_SLASH_SLASH]), (ACTIONS 5, 1, [anon_sym_SLASH_STAR]),
       (ACTIONS 7, 1, [anon_sym_SLASH_SLASH_SLASH]), (ACTIONS 9, 1, [sym__block_comment]),
       (ACTIONS 11, 1, [sym__documentation_block_comment]), (STATE 612, 2, [sym_comment,
       sym_documentation_comment]), (ACTIONS 1663, 21, [anon_sym_EQ, anon_sym_QMARK_QMARK,
       anon_sym_QMARK, anon_sym_LT, anon_sym_GT, anon_sym_PIPE, anon_sym_CARET, anon_sym_AMP,
       anon_sym_LT_LT, anon_sym_GT_GT, anon_sym_GT_GT_GT, sym__additive_operator, anon_sym_STAR,
       anon_sym_SLASH, anon_sym_PERCENT, anon_sym_TILDE_SLASH, anon_sym_BANG, anon_sym_as,
       anon_sym_DOT, anon_sym_QMARK_DOT, anon_sym_async]), (ACTIONS 1661, 30, [anon_sym_LBRACE,
       anon_sym_LBRACK, anon_sym_COMMA, anon_sym_LPAREN, anon_sym_PLUS_EQ, anon_sym_DASH_EQ,
       anon_sym_STAR_EQ, anon_sym_SLASH_EQ, anon_sym_PERCENT_EQ, anon_sym_TILDE_SLASH_EQ,
       anon_sym_LT_LT_EQ, anon_sym_GT_GT_EQ, anon_sym_GT_GT_GT_EQ, anon_sym_AMP_EQ,
       anon_sym_CARET_EQ, anon_sym_PIPE_EQ, anon_sym_QMARK_QMARK_EQ, sym_equality_operator,
       anon_sym_LT_EQ, anon_sym_GT_EQ, sym_increment_operator, anon_sym_is, anon_sym_DOT_DOT,
       anon_sym_QMARK_DOT_DOT, anon_sym_SEMI, anon_sym_EQ_GT, anon_sym_async_STAR,
       anon_sym_sync_STAR, anon_sym_AMP_AMP, anon_sym_PIPE_PIPE])]),
     (12601, 8, [(ACTIONS 3, 1, [anon_sym_SLASH_SLASH]), (ACTIONS 5, 1, [anon_sym_SLASH_STAR]),
       (ACTIONS 7, 1, [anon_sym_SLASH_SLASH_SLASH]), (ACTIONS 9, 1, [sym__block_comment]),
       (ACTIONS 11, 1, [sym__documentation_block_comment]), (STATE 613, 2, [sym_comment,
       sym_documentation_comment]), (ACTIONS 1917, 14, [anon_sym_DQUOTE, anon_sym_SQUOTE,
       anon_sym_r_DQUOTE, anon_sym_r_SQUOTE, anon_sym_QMARK, anon_sym_LT, anon_sym_GT,
       anon_sym_PIPE, anon_sym_AMP, anon_sym_GT_GT, anon_sym_SLASH, anon_sym_BANG, anon_sym_DOT,
       anon_sym_QMARK_DOT]), (ACTIONS 1919, 37, [anon_sym_DQUOTE_DQUOTE_DQUOTE,
       anon_sym_SQUOTE_SQUOTE_SQUOTE, anon_sym_r_DQUOTE_DQUOTE_DQUOTE,
       anon_sym_r_SQUOTE_SQUOTE_SQUOTE, anon_sym_RBRACE, anon_sym_LBRACK, anon_sym_COMMA,
       anon_sym_RBRACK, anon_sym_COLON, anon_sym_LPAREN, anon_sym_RPAREN, anon_sym_QMARK_QMARK,
       sym_equality_operator, anon_sym_LT_EQ, anon_sym_GT_EQ, anon_sym_CARET, anon_sym_LT_LT,
       anon_sym_GT_GT_GT, sym__additive_operator, anon_sym_STAR, anon_sym_PERCENT,
       anon_sym_TILDE_SLASH, anon_sym_is, anon_sym_as, anon_sym_DOT_DOT, anon_sym_QMARK_DOT_DOT,
       anon_sym_SEMI, anon_sym_EQ_GT, anon_sym_when, anon_sym_if, anon_sym_case, anon_sym_else,
       anon_sym_show, anon_sym_hide, anon_sym_deferred, anon_sym_AMP_AMP, anon_sym_PIPE_PIPE])])]"

lemma small_run_87: "small_run 612 12526 ts_small_parse_table_87 614 12676"
  by (simp add: small_simps ts_small_parse_table_87_def)

definition ts_small_parse_table_88 :: "small_group list" where
  "ts_small_parse_table_88 = [
     (12676, 8, [(ACTIONS 3, 1, [anon_sym_SLASH_SLASH]), (ACTIONS 5, 1, [anon_sym_SLASH_STAR]),
       (ACTIONS 7, 1, [anon_sym_SLASH_SLASH_SLASH]), (ACTIONS 9, 1, [sym__block_comment]),
       (ACTIONS 11, 1, [sym__documentation_block_comment]), (STATE 614, 2, [sym_comment,
       sym_documentation_comment]), (ACTIONS 1659, 21, [anon_sym_EQ, anon_sym_QMARK_QMARK,
       anon_sym_QMARK, anon_sym_LT, anon_sym_GT, anon_sym_PIPE, anon_sym_CARET, anon_sym_AMP,
       anon_sym_LT_LT, anon_sym_GT_GT, anon_sym_GT_GT_GT, sym__additive_operator, anon_sym_STAR,
       anon_sym_SLASH, anon_sym_PERCENT, anon_sym_TILDE_SLASH, anon_sym_BANG, anon_sym_as,
       anon_sym_DOT, anon_sym_QMARK_DOT, anon_sym_async]), (ACTIONS 1657, 30, [anon_sym_LBRACE,
       anon_sym_LBRACK, anon_sym_COMMA, anon_sym_LPAREN, anon_sym_PLUS_EQ, anon_sym_DASH_EQ,
       anon_sym_STAR_EQ, anon_sym_SLASH_EQ, anon_sym_PERCENT_EQ, anon_sym_TILDE_SLASH_EQ,
       anon_sym_LT_LT_EQ, anon_sym_GT_GT_EQ, anon_sym_GT_GT_GT_EQ, anon_sym_AMP_EQ,
       anon_sym_CARET_EQ, anon_sym_PIPE_EQ, anon_sym_QMARK_QMARK_EQ, sym_equality_operator,
       anon_sym_LT_EQ, anon_sym_GT_EQ, sym_increment_operator, anon_sym_is, anon_sym_DOT_DOT,
       anon_sym_QMARK_DOT_DOT, anon_sym_SEMI, anon_sym_EQ_GT, anon_sym_async_STAR,
       anon_sym_sync_STAR, anon_sym_AMP_AMP, anon_sym_PIPE_PIPE])]),
     (12751, 8, [(ACTIONS 3, 1, [anon_sym_SLASH_SLASH]), (ACTIONS 5, 1, [anon_sym_SLASH_STAR]),
       (ACTIONS 7, 1, [anon_sym_SLASH_SLASH_SLASH]), (ACTIONS 9, 1, [sym__block_comment]),
       (ACTIONS 11, 1, [sym__documentation_block_comment]), (STATE 615, 2, [sym_comment,
       sym_documentation_comment]), (ACTIONS 1921, 14, [anon_sym_DQUOTE, anon_sym_SQUOTE,
       anon_sym_r_DQUOTE, anon_sym_r_SQUOTE, anon_sym_QMARK, anon_sym_LT, anon_sym_GT,
       anon_sym_PIPE, anon_sym_AMP, anon_sym_GT_GT, anon_sym_SLASH, anon_sym_BANG, anon_sym_DOT,
       anon_sym_QMARK_DOT]), (ACTIONS 1923, 37, [anon_sym_DQUOTE_DQUOTE_DQUOTE,
       anon_sym_SQUOTE_SQUOTE_SQUOTE, anon_sym_r_DQUOTE_DQUOTE_DQUOTE,
       anon_sym_r_SQUOTE_SQUOTE_SQUOTE, anon_sym_RBRACE, anon_sym_LBRACK, anon_sym_COMMA,
       anon_sym_RBRACK, anon_sym_COLON, anon_sym_LPAREN, anon_sym_RPAREN, anon_sym_QMARK_QMARK,
       sym_equality_operator, anon_sym_LT_EQ, anon_sym_GT_EQ, anon_sym_CARET, anon_sym_LT_LT,
       anon_sym_GT_GT_GT, sym__additive_operator, anon_sym_STAR, anon_sym_PERCENT,
       anon_sym_TILDE_SLASH, anon_sym_is, anon_sym_as, anon_sym_DOT_DOT, anon_sym_QMARK_DOT_DOT,
       anon_sym_SEMI, anon_sym_EQ_GT, anon_sym_when, anon_sym_if, anon_sym_case, anon_sym_else,
       anon_sym_show, anon_sym_hide, anon_sym_deferred, anon_sym_AMP_AMP, anon_sym_PIPE_PIPE])])]"

lemma small_run_88: "small_run 614 12676 ts_small_parse_table_88 616 12826"
  by (simp add: small_simps ts_small_parse_table_88_def)

definition ts_small_parse_table_89 :: "small_group list" where
  "ts_small_parse_table_89 = [
     (12826, 8, [(ACTIONS 3, 1, [anon_sym_SLASH_SLASH]), (ACTIONS 5, 1, [anon_sym_SLASH_STAR]),
       (ACTIONS 7, 1, [anon_sym_SLASH_SLASH_SLASH]), (ACTIONS 9, 1, [sym__block_comment]),
       (ACTIONS 11, 1, [sym__documentation_block_comment]), (STATE 616, 2, [sym_comment,
       sym_documentation_comment]), (ACTIONS 1925, 14, [anon_sym_DQUOTE, anon_sym_SQUOTE,
       anon_sym_r_DQUOTE, anon_sym_r_SQUOTE, anon_sym_QMARK, anon_sym_LT, anon_sym_GT,
       anon_sym_PIPE, anon_sym_AMP, anon_sym_GT_GT, anon_sym_SLASH, anon_sym_BANG, anon_sym_DOT,
       anon_sym_QMARK_DOT]), (ACTIONS 1927, 37, [anon_sym_DQUOTE_DQUOTE_DQUOTE,
       anon_sym_SQUOTE_SQUOTE_SQUOTE, anon_sym_r_DQUOTE_DQUOTE_DQUOTE,
       anon_sym_r_SQUOTE_SQUOTE_SQUOTE, anon_sym_RBRACE, anon_sym_LBRACK, anon_sym_COMMA,
       anon_sym_RBRACK, anon_sym_COLON, anon_sym_LPAREN, anon_sym_RPAREN, anon_sym_QMARK_QMARK,
       sym_equality_operator, anon_sym_LT_EQ, anon_sym_GT_EQ, anon_sym_CARET, anon_sym_LT_LT,
       anon_sym_GT_GT_GT, sym__additive_operator, anon_sym_STAR, anon_sym_PERCENT,
       anon_sym_TILDE_SLASH, anon_sym_is, anon_sym_as, anon_sym_DOT_DOT, anon_sym_QMARK_DOT_DOT,
       anon_sym_SEMI, anon_sym_EQ_GT, anon_sym_when, anon_sym_if, anon_sym_case, anon_sym_else,
       anon_sym_show, anon_sym_hide, anon_sym_deferred, anon_sym_AMP_AMP, anon_sym_PIPE_PIPE])]),
     (12901, 8, [(ACTIONS 3, 1, [anon_sym_SLASH_SLASH]), (ACTIONS 5, 1, [anon_sym_SLASH_STAR]),
       (ACTIONS 7, 1, [anon_sym_SLASH_SLASH_SLASH]), (ACTIONS 9, 1, [sym__block_comment]),
       (ACTIONS 11, 1, [sym__documentation_block_comment]), (STATE 617, 2, [sym_comment,
       sym_documentation_comment]), (ACTIONS 1929, 14, [anon_sym_DQUOTE, anon_sym_SQUOTE,
       anon_sym_r_DQUOTE, anon_sym_r_SQUOTE, anon_sym_QMARK, anon_sym_LT, anon_sym_GT,
       anon_sym_PIPE, anon_sym_AMP, anon_sym_GT_GT, anon_sym_SLASH, anon_sym_BANG, anon_sym_DOT,
       anon_sym_QMARK_DOT]), (ACTIONS 1931, 37, [anon_sym_DQUOTE_DQUOTE_DQUOTE,
       anon_sym_SQUOTE_SQUOTE_SQUOTE, anon_sym_r_DQUOTE_DQUOTE_DQUOTE,
       anon_sym_r_SQUOTE_SQUOTE_SQUOTE, anon_sym_RBRACE, anon_sym_LBRACK, anon_sym_COMMA,
       anon_sym_RBRACK, anon_sym_COLON, anon_sym_LPAREN, anon_sym_RPAREN, anon_sym_QMARK_QMARK,
       sym_equality_operator, anon_sym_LT_EQ, anon_sym_GT_EQ, anon_sym_CARET, anon_sym_LT_LT,
       anon_sym_GT_GT_GT, sym__additive_operator, anon_sym_STAR, anon_sym_PERCENT,
       anon_sym_TILDE_SLASH, anon_sym_is, anon_sym_as, anon_sym_DOT_DOT, anon_sym_QMARK_DOT_DOT,
       anon_sym_SEMI, anon_sym_EQ_GT, anon_sym_when, anon_sym_if, anon_sym_case, anon_sym_else,
       anon_sym_show, anon_sym_hide, anon_sym_deferred, anon_sym_AMP_AMP, anon_sym_PIPE_PIPE])])]"

lemma small_run_89: "small_run 616 12826 ts_small_parse_table_89 618 12976"
  by (simp add: small_simps ts_small_parse_table_89_def)

definition ts_small_parse_table_90 :: "small_group list" where
  "ts_small_parse_table_90 = [
     (12976, 16, [(ACTIONS 3, 1, [anon_sym_SLASH_SLASH]), (ACTIONS 5, 1,
       [anon_sym_SLASH_STAR]), (ACTIONS 7, 1, [anon_sym_SLASH_SLASH_SLASH]), (ACTIONS 9, 1,
       [sym__block_comment]), (ACTIONS 11, 1, [sym__documentation_block_comment]), (ACTIONS 1936,
       1, [anon_sym_LPAREN]), (ACTIONS 1939, 1, [anon_sym_EQ]), (ACTIONS 1942, 1, [anon_sym_LT]),
       (STATE 2016, 1, [sym__strict_formal_parameter_list]), (STATE 2020, 1,
       [sym_formal_parameter_list]), (STATE 2447, 1, [sym__formal_parameter_part]), (STATE 2932,
       1, [sym_type_parameters]), (ACTIONS 1933, 2, [anon_sym_COMMA, anon_sym_RBRACK]), (STATE
       618, 2, [sym_comment, sym_documentation_comment]), (ACTIONS 1663, 17,
       [anon_sym_QMARK_QMARK, anon_sym_QMARK, anon_sym_GT, anon_sym_PIPE, anon_sym_CARET,
       anon_sym_AMP, anon_sym_LT_LT, anon_sym_GT_GT, anon_sym_GT_GT_GT, sym__additive_operator,
       anon_sym_STAR, anon_sym_SLASH, anon_sym_PERCENT, anon_sym_TILDE_SLASH, anon_sym_BANG,
       anon_sym_DOT, anon_sym_QMARK_DOT]), (ACTIONS 1661, 25, [anon_sym_LBRACK, anon_sym_COLON,
       anon_sym_PLUS_EQ, anon_sym_DASH_EQ, anon_sym_STAR_EQ, anon_sym_SLASH_EQ,
       anon_sym_PERCENT_EQ, anon_sym_TILDE_SLASH_EQ, anon_sym_LT_LT_EQ, anon_sym_GT_GT_EQ,
       anon_sym_GT_GT_GT_EQ, anon_sym_AMP_EQ, anon_sym_CARET_EQ, anon_sym_PIPE_EQ,
       anon_sym_QMARK_QMARK_EQ, sym_equality_operator, anon_sym_LT_EQ, anon_sym_GT_EQ,
       sym_increment_operator, anon_sym_is, anon_sym_as, anon_sym_DOT_DOT,
       anon_sym_QMARK_DOT_DOT, anon_sym_AMP_AMP, anon_sym_PIPE_PIPE])]),
     (13067, 8, [(ACTIONS 3, 1, [anon_sym_SLASH_SLASH]), (ACTIONS 5, 1, [anon_sym_SLASH_STAR]),
       (ACTIONS 7, 1, [anon_sym_SLASH_SLASH_SLASH]), (ACTIONS 9, 1, [sym__block_comment]),
       (ACTIONS 11, 1, [sym__documentation_block_comment]), (STATE 619, 2, [sym_comment,
       sym_documentation_comment]), (ACTIONS 1945, 14, [anon_sym_DQUOTE, anon_sym_SQUOTE,
       anon_sym_r_DQUOTE, anon_sym_r_SQUOTE, anon_sym_QMARK, anon_sym_LT, anon_sym_GT,
       anon_sym_PIPE, anon_sym_AMP, anon_sym_GT_GT, anon_sym_SLASH, anon_sym_BANG, anon_sym_DOT,
       anon_sym_QMARK_DOT]), (ACTIONS 1947, 37, [anon_sym_DQUOTE_DQUOTE_DQUOTE,
       anon_sym_SQUOTE_SQUOTE_SQUOTE, anon_sym_r_DQUOTE_DQUOTE_DQUOTE,
       anon_sym_r_SQUOTE_SQUOTE_SQUOTE, anon_sym_RBRACE, anon_sym_LBRACK, anon_sym_COMMA,
       anon_sym_RBRACK, anon_sym_COLON, anon_sym_LPAREN, anon_sym_RPAREN, anon_sym_QMARK_QMARK,
       sym_equality_operator, anon_sym_LT_EQ, anon_sym_GT_EQ, anon_sym_CARET, anon_sym_LT_LT,
       anon_sym_GT_GT_GT, sym__additive_operator, anon_sym_STAR, anon_sym_PERCENT,
       anon_sym_TILDE_SLASH, anon_sym_is, anon_sym_as, anon_sym_DOT_DOT, anon_sym_QMARK_DOT_DOT,
       anon_sym_SEMI, anon_sym_EQ_GT, anon_sym_when, anon_sym_if, anon_sym_case, anon_sym_else,
       anon_sym_show, anon_sym_hide, anon_sym_deferred, anon_sym_AMP_AMP, anon_sym_PIPE_PIPE])])]"

lemma small_run_90: "small_run 618 12976 ts_small_parse_table_90 620 13142"
  by (simp add: small_simps ts_small_parse_table_90_def)

definition ts_small_parse_table_91 :: "small_group list" where
  "ts_small_parse_table_91 = [
     (13142, 10, [(ACTIONS 3, 1, [anon_sym_SLASH_SLASH]), (ACTIONS 5, 1,
       [anon_sym_SLASH_STAR]), (ACTIONS 7, 1, [anon_sym_SLASH_SLASH_SLASH]), (ACTIONS 9, 1,
       [sym__block_comment]), (ACTIONS 11, 1, [sym__documentation_block_comment]), (ACTIONS 1674,
       1, [anon_sym_EQ]), (STATE 620, 2, [sym_comment, sym_documentation_comment]), (ACTIONS
       1676, 14, [anon_sym_PLUS_EQ, anon_sym_DASH_EQ, anon_sym_STAR_EQ, anon_sym_SLASH_EQ,
       anon_sym_PERCENT_EQ, anon_sym_TILDE_SLASH_EQ, anon_sym_LT_LT_EQ, anon_sym_GT_GT_EQ,
       anon_sym_GT_GT_GT_EQ, anon_sym_AMP_EQ, anon_sym_CARET_EQ, anon_sym_PIPE_EQ,
       anon_sym_QMARK_QMARK_EQ, sym_increment_operator]), (ACTIONS 1672, 16, [anon_sym_LBRACE,
       anon_sym_LBRACK, anon_sym_COMMA, anon_sym_LPAREN, sym_equality_operator, anon_sym_LT_EQ,
       anon_sym_GT_EQ, anon_sym_is, anon_sym_DOT_DOT, anon_sym_QMARK_DOT_DOT, anon_sym_SEMI,
       anon_sym_EQ_GT, anon_sym_async_STAR, anon_sym_sync_STAR, anon_sym_AMP_AMP,
       anon_sym_PIPE_PIPE]), (ACTIONS 1678, 20, [anon_sym_QMARK_QMARK, anon_sym_QMARK,
       anon_sym_LT, anon_sym_GT, anon_sym_PIPE, anon_sym_CARET, anon_sym_AMP, anon_sym_LT_LT,
       anon_sym_GT_GT, anon_sym_GT_GT_GT, sym__additive_operator, anon_sym_STAR, anon_sym_SLASH,
       anon_sym_PERCENT, anon_sym_TILDE_SLASH, anon_sym_BANG, anon_sym_as, anon_sym_DOT,
       anon_sym_QMARK_DOT, anon_sym_async])]),
     (13221, 10, [(ACTIONS 3, 1, [anon_sym_SLASH_SLASH]), (ACTIONS 5, 1,
       [anon_sym_SLASH_STAR]), (ACTIONS 7, 1, [anon_sym_SLASH_SLASH_SLASH]), (ACTIONS 9, 1,
       [sym__block_comment]), (ACTIONS 11, 1, [sym__documentation_block_comment]), (ACTIONS 1699,
       1, [anon_sym_EQ]), (STATE 621, 2, [sym_comment, sym_documentation_comment]), (ACTIONS
       1701, 14, [anon_sym_PLUS_EQ, anon_sym_DASH_EQ, anon_sym_STAR_EQ, anon_sym_SLASH_EQ,
       anon_sym_PERCENT_EQ, anon_sym_TILDE_SLASH_EQ, anon_sym_LT_LT_EQ, anon_sym_GT_GT_EQ,
       anon_sym_GT_GT_GT_EQ, anon_sym_AMP_EQ, anon_sym_CARET_EQ, anon_sym_PIPE_EQ,
       anon_sym_QMARK_QMARK_EQ, sym_increment_operator]), (ACTIONS 1680, 16, [anon_sym_LBRACE,
       anon_sym_LBRACK, anon_sym_COMMA, anon_sym_LPAREN, sym_equality_operator, anon_sym_LT_EQ,
       anon_sym_GT_EQ, anon_sym_is, anon_sym_DOT_DOT, anon_sym_QMARK_DOT_DOT, anon_sym_SEMI,
       anon_sym_EQ_GT, anon_sym_async_STAR, anon_sym_sync_STAR, anon_sym_AMP_AMP,
       anon_sym_PIPE_PIPE]), (ACTIONS 1686, 20, [anon_sym_QMARK_QMARK, anon_sym_QMARK,
       anon_sym_LT, anon_sym_GT, anon_sym_PIPE, anon_sym_CARET, anon_sym_AMP, anon_sym_LT_LT,
       anon_sym_GT_GT, anon_sym_GT_GT_GT, sym__additive_operator, anon_sym_STAR, anon_sym_SLASH,
       anon_sym_PERCENT, anon_sym_TILDE_SLASH, anon_sym_BANG, anon_sym_as, anon_sym_DOT,
       anon_sym_QMARK_DOT, anon_sym_async])])]"

lemma small_run_91: "small_run 620 13142 ts_small_parse_table_91 622 13300"
  by (simp add: small_simps ts_small_parse_table_91_def)

definition ts_small_parse_table_92 :: "small_group list" where
  "ts_small_parse_table_92 = [
     (13300, 8, [(ACTIONS 3, 1, [anon_sym_SLASH_SLASH]), (ACTIONS 5, 1, [anon_sym_SLASH_STAR]),
       (ACTIONS 7, 1, [anon_sym_SLASH_SLASH_SLASH]), (ACTIONS 9, 1, [sym__block_comment]),
       (ACTIONS 11, 1, [sym__documentation_block_comment]), (STATE 622, 2, [sym_comment,
       sym_documentation_comment]), (ACTIONS 1670, 21, [anon_sym_EQ, anon_sym_QMARK_QMARK,
       anon_sym_QMARK, anon_sym_LT, anon_sym_GT, anon_sym_PIPE, anon_sym_CARET, anon_sym_AMP,
       anon_sym_LT_LT, anon_sym_GT_GT, anon_sym_GT_GT_GT, sym__additive_operator, anon_sym_STAR,
       anon_sym_SLASH, anon_sym_PERCENT, anon_sym_TILDE_SLASH, anon_sym_BANG, anon_sym_as,
       anon_sym_DOT, anon_sym_QMARK_DOT, anon_sym_async]), (ACTIONS 1668, 30, [anon_sym_LBRACE,
       anon_sym_LBRACK, anon_sym_COMMA, anon_sym_LPAREN, anon_sym_PLUS_EQ, anon_sym_DASH_EQ,
       anon_sym_STAR_EQ, anon_sym_SLASH_EQ, anon_sym_PERCENT_EQ, anon_sym_TILDE_SLASH_EQ,
       anon_sym_LT_LT_EQ, anon_sym_GT_GT_EQ, anon_sym_GT_GT_GT_EQ, anon_sym_AMP_EQ,
       anon_sym_CARET_EQ, anon_sym_PIPE_EQ, anon_sym_QMARK_QMARK_EQ, sym_equality_operator,
       anon_sym_LT_EQ, anon_sym_GT_EQ, sym_increment_operator, anon_sym_is, anon_sym_DOT_DOT,
       anon_sym_QMARK_DOT_DOT, anon_sym_SEMI, anon_sym_EQ_GT, anon_sym_async_STAR,
       anon_sym_sync_STAR, anon_sym_AMP_AMP, anon_sym_PIPE_PIPE])]),
     (13375, 10, [(ACTIONS 3, 1, [anon_sym_SLASH_SLASH]), (ACTIONS 5, 1,
       [anon_sym_SLASH_STAR]), (ACTIONS 7, 1, [anon_sym_SLASH_SLASH_SLASH]), (ACTIONS 9, 1,
       [sym__block_comment]), (ACTIONS 11, 1, [sym__documentation_block_comment]), (ACTIONS 1682,
       1, [anon_sym_EQ]), (STATE 623, 2, [sym_comment, sym_documentation_comment]), (ACTIONS
       1684, 14, [anon_sym_PLUS_EQ, anon_sym_DASH_EQ, anon_sym_STAR_EQ, anon_sym_SLASH_EQ,
       anon_sym_PERCENT_EQ, anon_sym_TILDE_SLASH_EQ, anon_sym_LT_LT_EQ, anon_sym_GT_GT_EQ,
       anon_sym_GT_GT_GT_EQ, anon_sym_AMP_EQ, anon_sym_CARET_EQ, anon_sym_PIPE_EQ,
       anon_sym_QMARK_QMARK_EQ, sym_increment_operator]), (ACTIONS 1680, 16, [anon_sym_LBRACE,
       anon_sym_LBRACK, anon_sym_COMMA, anon_sym_LPAREN, sym_equality_operator, anon_sym_LT_EQ,
       anon_sym_GT_EQ, anon_sym_is, anon_sym_DOT_DOT, anon_sym_QMARK_DOT_DOT, anon_sym_SEMI,
       anon_sym_EQ_GT, anon_sym_async_STAR, anon_sym_sync_STAR, anon_sym_AMP_AMP,
       anon_sym_PIPE_PIPE]), (ACTIONS 1686, 20, [anon_sym_QMARK_QMARK, anon_sym_QMARK,
       anon_sym_LT, anon_sym_GT, anon_sym_PIPE, anon_sym_CARET, anon_sym_AMP, anon_sym_LT_LT,
       anon_sym_GT_GT, anon_sym_GT_GT_GT, sym__additive_operator, anon_sym_STAR, anon_sym_SLASH,
       anon_sym_PERCENT, anon_sym_TILDE_SLASH, anon_sym_BANG, anon_sym_as, anon_sym_DOT,
       anon_sym_QMARK_DOT, anon_sym_async])])]"

lemma small_run_92: "small_run 622 13300 ts_small_parse_table_92 624 13454"
  by (simp add: small_simps ts_small_parse_table_92_def)

definition ts_small_parse_table_93 :: "small_group list" where
  "ts_small_parse_table_93 = [
     (13454, 8, [(ACTIONS 3, 1, [anon_sym_SLASH_SLASH]), (ACTIONS 5, 1, [anon_sym_SLASH_STAR]),
       (ACTIONS 7, 1, [anon_sym_SLASH_SLASH_SLASH]), (ACTIONS 9, 1, [sym__block_comment]),
       (ACTIONS 11, 1, [sym__documentation_block_comment]), (STATE 624, 2, [sym_comment,
       sym_documentation_comment]), (ACTIONS 1949, 14, [anon_sym_DQUOTE, anon_sym_SQUOTE,
       anon_sym_r_DQUOTE, anon_sym_r_SQUOTE, anon_sym_QMARK, anon_sym_LT, anon_sym_GT,
       anon_sym_PIPE, anon_sym_AMP, anon_sym_GT_GT, anon_sym_SLASH, anon_sym_BANG, anon_sym_DOT,
       anon_sym_QMARK_DOT]), (ACTIONS 1951, 37, [anon_sym_DQUOTE_DQUOTE_DQUOTE,
       anon_sym_SQUOTE_SQUOTE_SQUOTE, anon_sym_r_DQUOTE_DQUOTE_DQUOTE,
       anon_sym_r_SQUOTE_SQUOTE_SQUOTE, anon_sym_RBRACE, anon_sym_LBRACK, anon_sym_COMMA,
       anon_sym_RBRACK, anon_sym_COLON, anon_sym_LPAREN, anon_sym_RPAREN, anon_sym_QMARK_QMARK,
       sym_equality_operator, anon_sym_LT_EQ, anon_sym_GT_EQ, anon_sym_CARET, anon_sym_LT_LT,
       anon_sym_GT_GT_GT, sym__additive_operator, anon_sym_STAR, anon_sym_PERCENT,
       anon_sym_TILDE_SLASH, anon_sym_is, anon_sym_as, anon_sym_DOT_DOT, anon_sym_QMARK_DOT_DOT,
       anon_sym_SEMI, anon_sym_EQ_GT, anon_sym_when, anon_sym_if, anon_sym_case, anon_sym_else,
       anon_sym_show, anon_sym_hide, anon_sym_deferred, anon_sym_AMP_AMP, anon_sym_PIPE_PIPE])]),
     (13529, 8, [(ACTIONS 3, 1, [anon_sym_SLASH_SLASH]), (ACTIONS 5, 1, [anon_sym_SLASH_STAR]),
       (ACTIONS 7, 1, [anon_sym_SLASH_SLASH_SLASH]), (ACTIONS 9, 1, [sym__block_comment]),
       (ACTIONS 11, 1, [sym__documentation_block_comment]), (STATE 625, 2, [sym_comment,
       sym_documentation_comment]), (ACTIONS 1953, 14, [anon_sym_DQUOTE, anon_sym_SQUOTE,
       anon_sym_r_DQUOTE, anon_sym_r_SQUOTE, anon_sym_QMARK, anon_sym_LT, anon_sym_GT,
       anon_sym_PIPE, anon_sym_AMP, anon_sym_GT_GT, anon_sym_SLASH, anon_sym_BANG, anon_sym_DOT,
       anon_sym_QMARK_DOT]), (ACTIONS 1955, 37, [anon_sym_DQUOTE_DQUOTE_DQUOTE,
       anon_sym_SQUOTE_SQUOTE_SQUOTE, anon_sym_r_DQUOTE_DQUOTE_DQUOTE,
       anon_sym_r_SQUOTE_SQUOTE_SQUOTE, anon_sym_RBRACE, anon_sym_LBRACK, anon_sym_COMMA,
       anon_sym_RBRACK, anon_sym_COLON, anon_sym_LPAREN, anon_sym_RPAREN, anon_sym_QMARK_QMARK,
       sym_equality_operator, anon_sym_LT_EQ, anon_sym_GT_EQ, anon_sym_CARET, anon_sym_LT_LT,
       anon_sym_GT_GT_GT, sym__additive_operator, anon_sym_STAR, anon_sym_PERCENT,
       anon_sym_TILDE_SLASH, anon_sym_is, anon_sym_as, anon_sym_DOT_DOT, anon_sym_QMARK_DOT_DOT,
       anon_sym_SEMI, anon_sym_EQ_GT, anon_sym_when, anon_sym_if, anon_sym_case, anon_sym_else,
       anon_sym_show, anon_sym_hide, anon_sym_deferred, anon_sym_AMP_AMP, anon_sym_PIPE_PIPE])])]"

lemma small_run_93: "small_run 624 13454 ts_small_parse_table_93 626 13604"
  by (simp add: small_simps ts_small_parse_table_93_def)

definition ts_small_parse_table_94 :: "small_group list" where
  "ts_small_parse_table_94 = [
     (13604, 8, [(ACTIONS 3, 1, [anon_sym_SLASH_SLASH]), (ACTIONS 5, 1, [anon_sym_SLASH_STAR]),
       (ACTIONS 7, 1, [anon_sym_SLASH_SLASH_SLASH]), (ACTIONS 9, 1, [sym__block_comment]),
       (ACTIONS 11, 1, [sym__documentation_block_comment]), (STATE 626, 2, [sym_comment,
       sym_documentation_comment]), (ACTIONS 1957, 14, [anon_sym_DQUOTE, anon_sym_SQUOTE,
       anon_sym_r_DQUOTE, anon_sym_r_SQUOTE, anon_sym_QMARK, anon_sym_LT, anon_sym_GT,
       anon_sym_PIPE, anon_sym_AMP, anon_sym_GT_GT, anon_sym_SLASH, anon_sym_BANG, anon_sym_DOT,
       anon_sym_QMARK_DOT]), (ACTIONS 1959, 37, [anon_sym_DQUOTE_DQUOTE_DQUOTE,
       anon_sym_SQUOTE_SQUOTE_SQUOTE, anon_sym_r_DQUOTE_DQUOTE_DQUOTE,
       anon_sym_r_SQUOTE_SQUOTE_SQUOTE, anon_sym_RBRACE, anon_sym_LBRACK, anon_sym_COMMA,
       anon_sym_RBRACK, anon_sym_COLON, anon_sym_LPAREN, anon_sym_RPAREN, anon_sym_QMARK_QMARK,
       sym_equality_operator, anon_sym_LT_EQ, anon_sym_GT_EQ, anon_sym_CARET, anon_sym_LT_LT,
       anon_sym_GT_GT_GT, sym__additive_operator, anon_sym_STAR, anon_sym_PERCENT,
       anon_sym_TILDE_SLASH, anon_sym_is, anon_sym_as, anon_sym_DOT_DOT, anon_sym_QMARK_DOT_DOT,
       anon_sym_SEMI, anon_sym_EQ_GT, anon_sym_when, anon_sym_if, anon_sym_case, anon_sym_else,
       anon_sym_show, anon_sym_hide, anon_sym_deferred, anon_sym_AMP_AMP, anon_sym_PIPE_PIPE])]),
     (13679, 8, [(ACTIONS 3, 1, [anon_sym_SLASH_SLASH]), (ACTIONS 5, 1, [anon_sym_SLASH_STAR]),
       (ACTIONS 7, 1, [anon_sym_SLASH_SLASH_SLASH]), (ACTIONS 9, 1, [sym__block_comment]),
       (ACTIONS 11, 1, [sym__documentation_block_comment]), (STATE 627, 2, [sym_comment,
       sym_documentation_comment]), (ACTIONS 1961, 14, [anon_sym_DQUOTE, anon_sym_SQUOTE,
       anon_sym_r_DQUOTE, anon_sym_r_SQUOTE, anon_sym_QMARK, anon_sym_LT, anon_sym_GT,
       anon_sym_PIPE, anon_sym_AMP, anon_sym_GT_GT, anon_sym_SLASH, anon_sym_BANG, anon_sym_DOT,
       anon_sym_QMARK_DOT]), (ACTIONS 1963, 37, [anon_sym_DQUOTE_DQUOTE_DQUOTE,
       anon_sym_SQUOTE_SQUOTE_SQUOTE, anon_sym_r_DQUOTE_DQUOTE_DQUOTE,
       anon_sym_r_SQUOTE_SQUOTE_SQUOTE, anon_sym_RBRACE, anon_sym_LBRACK, anon_sym_COMMA,
       anon_sym_RBRACK, anon_sym_COLON, anon_sym_LPAREN, anon_sym_RPAREN, anon_sym_QMARK_QMARK,
       sym_equality_operator, anon_sym_LT_EQ, anon_sym_GT_EQ, anon_sym_CARET, anon_sym_LT_LT,
       anon_sym_GT_GT_GT, sym__additive_operator, anon_sym_STAR, anon_sym_PERCENT,
       anon_sym_TILDE_SLASH, anon_sym_is, anon_sym_as, anon_sym_DOT_DOT, anon_sym_QMARK_DOT_DOT,
       anon_sym_SEMI, anon_sym_EQ_GT, anon_sym_when, anon_sym_if, anon_sym_case, anon_sym_else,
       anon_sym_show, anon_sym_hide, anon_sym_deferred, anon_sym_AMP_AMP, anon_sym_PIPE_PIPE])])]"

lemma small_run_94: "small_run 626 13604 ts_small_parse_table_94 628 13754"
  by (simp add: small_simps ts_small_parse_table_94_def)

definition ts_small_parse_table_95 :: "small_group list" where
  "ts_small_parse_table_95 = [
     (13754, 8, [(ACTIONS 3, 1, [anon_sym_SLASH_SLASH]), (ACTIONS 5, 1, [anon_sym_SLASH_STAR]),
       (ACTIONS 7, 1, [anon_sym_SLASH_SLASH_SLASH]), (ACTIONS 9, 1, [sym__block_comment]),
       (ACTIONS 11, 1, [sym__documentation_block_comment]), (STATE 628, 2, [sym_comment,
       sym_documentation_comment]), (ACTIONS 1965, 14, [anon_sym_DQUOTE, anon_sym_SQUOTE,
       anon_sym_r_DQUOTE, anon_sym_r_SQUOTE, anon_sym_QMARK, anon_sym_LT, anon_sym_GT,
       anon_sym_PIPE, anon_sym_AMP, anon_sym_GT_GT, anon_sym_SLASH, anon_sym_BANG, anon_sym_DOT,
       anon_sym_QMARK_DOT]), (ACTIONS 1967, 37, [anon_sym_DQUOTE_DQUOTE_DQUOTE,
       anon_sym_SQUOTE_SQUOTE_SQUOTE, anon_sym_r_DQUOTE_DQUOTE_DQUOTE,
       anon_sym_r_SQUOTE_SQUOTE_SQUOTE, anon_sym_RBRACE, anon_sym_LBRACK, anon_sym_COMMA,
       anon_sym_RBRACK, anon_sym_COLON, anon_sym_LPAREN, anon_sym_RPAREN, anon_sym_QMARK_QMARK,
       sym_equality_operator, anon_sym_LT_EQ, anon_sym_GT_EQ, anon_sym_CARET, anon_sym_LT_LT,
       anon_sym_GT_GT_GT, sym__additive_operator, anon_sym_STAR, anon_sym_PERCENT,
       anon_sym_TILDE_SLASH, anon_sym_is, anon_sym_as, anon_sym_DOT_DOT, anon_sym_QMARK_DOT_DOT,
       anon_sym_SEMI, anon_sym_EQ_GT, anon_sym_when, anon_sym_if, anon_sym_case, anon_sym_else,
       anon_sym_show, anon_sym_hide, anon_sym_deferred, anon_sym_AMP_AMP, anon_sym_PIPE_PIPE])]),
     (13829, 16, [(ACTIONS 3, 1, [anon_sym_SLASH_SLASH]), (ACTIONS 5, 1,
       [anon_sym_SLASH_STAR]), (ACTIONS 7, 1, [anon_sym_SLASH_SLASH_SLASH]), (ACTIONS 9, 1,
       [sym__block_comment]), (ACTIONS 11, 1, [sym__documentation_block_comment]), (ACTIONS 1936,
       1, [anon_sym_LPAREN]), (ACTIONS 1939, 1, [anon_sym_EQ]), (ACTIONS 1942, 1, [anon_sym_LT]),
       (STATE 2016, 1, [sym__strict_formal_parameter_list]), (STATE 2020, 1,
       [sym_formal_parameter_list]), (STATE 2447, 1, [sym__formal_parameter_part]), (STATE 2932,
       1, [sym_type_parameters]), (STATE 629, 2, [sym_comment, sym_documentation_comment]),
       (ACTIONS 1933, 3, [anon_sym_RBRACE, anon_sym_COMMA, anon_sym_COLON]), (ACTIONS 1663, 17,
       [anon_sym_QMARK_QMARK, anon_sym_QMARK, anon_sym_GT, anon_sym_PIPE, anon_sym_CARET,
       anon_sym_AMP, anon_sym_LT_LT, anon_sym_GT_GT, anon_sym_GT_GT_GT, sym__additive_operator,
       anon_sym_STAR, anon_sym_SLASH, anon_sym_PERCENT, anon_sym_TILDE_SLASH, anon_sym_BANG,
       anon_sym_DOT, anon_sym_QMARK_DOT]), (ACTIONS 1661, 24, [anon_sym_LBRACK, anon_sym_PLUS_EQ,
       anon_sym_DASH_EQ, anon_sym_STAR_EQ, anon_sym_SLASH_EQ, anon_sym_PERCENT_EQ,
       anon_sym_TILDE_SLASH_EQ, anon_sym_LT_LT_EQ, anon_sym_GT_GT_EQ, anon_sym_GT_GT_GT_EQ,
       anon_sym_AMP_EQ, anon_sym_CARET_EQ, anon_sym_PIPE_EQ, anon_sym_QMARK_QMARK_EQ,
       sym_equality_operator, anon_sym_LT_EQ, anon_sym_GT_EQ, sym_increment_operator,
       anon_sym_is, anon_sym_as, anon_sym_DOT_DOT, anon_sym_QMARK_DOT_DOT, anon_sym_AMP_AMP,
       anon_sym_PIPE_PIPE])])]"

lemma small_run_95: "small_run 628 13754 ts_small_parse_table_95 630 13920"
  by (simp add: small_simps ts_small_parse_table_95_def)

definition ts_small_parse_table_96 :: "small_group list" where
  "ts_small_parse_table_96 = [
     (13920, 18, [(ACTIONS 3, 1, [anon_sym_SLASH_SLASH]), (ACTIONS 5, 1,
       [anon_sym_SLASH_STAR]), (ACTIONS 7, 1, [anon_sym_SLASH_SLASH_SLASH]), (ACTIONS 9, 1,
       [sym__block_comment]), (ACTIONS 11, 1, [sym__documentation_block_comment]), (ACTIONS 1328,
       1, [anon_sym_EQ]), (ACTIONS 1334, 1, [anon_sym_LT]), (ACTIONS 1341, 1, [anon_sym_DOT]),
       (ACTIONS 1482, 1, [anon_sym_QMARK]), (ACTIONS 1516, 1, [anon_sym_LPAREN]), (STATE 1612, 1,
       [sym__type_dot_identifier]), (ACTIONS 1320, 2, [anon_sym_Function, sym_identifier]),
       (ACTIONS 1486, 2, [anon_sym_BANG, anon_sym_as]), (STATE 630, 2, [sym_comment,
       sym_documentation_comment]), (ACTIONS 1489, 5, [anon_sym_RBRACE, anon_sym_COMMA,
       anon_sym_RBRACK, anon_sym_AMP_AMP, anon_sym_PIPE_PIPE]), (ACTIONS 1322, 7,
       [anon_sym_LBRACK, anon_sym_COLON, sym_equality_operator, anon_sym_LT_EQ, anon_sym_GT_EQ,
       anon_sym_DOT_DOT, anon_sym_QMARK_DOT_DOT]), (ACTIONS 1330, 14, [anon_sym_PLUS_EQ,
       anon_sym_DASH_EQ, anon_sym_STAR_EQ, anon_sym_SLASH_EQ, anon_sym_PERCENT_EQ,
       anon_sym_TILDE_SLASH_EQ, anon_sym_LT_LT_EQ, anon_sym_GT_GT_EQ, anon_sym_GT_GT_GT_EQ,
       anon_sym_AMP_EQ, anon_sym_CARET_EQ, anon_sym_PIPE_EQ, anon_sym_QMARK_QMARK_EQ,
       sym_increment_operator]), (ACTIONS 1332, 15, [anon_sym_QMARK_QMARK, anon_sym_GT,
       anon_sym_PIPE, anon_sym_CARET, anon_sym_AMP, anon_sym_LT_LT, anon_sym_GT_GT,
       anon_sym_GT_GT_GT, sym__additive_operator, anon_sym_STAR, anon_sym_SLASH,
       anon_sym_PERCENT, anon_sym_TILDE_SLASH, anon_sym_is, anon_sym_QMARK_DOT])]),
     (14015, 8, [(ACTIONS 3, 1, [anon_sym_SLASH_SLASH]), (ACTIONS 5, 1, [anon_sym_SLASH_STAR]),
       (ACTIONS 7, 1, [anon_sym_SLASH_SLASH_SLASH]), (ACTIONS 9, 1, [sym__block_comment]),
       (ACTIONS 11, 1, [sym__documentation_block_comment]), (STATE 631, 2, [sym_comment,
       sym_documentation_comment]), (ACTIONS 1969, 14, [anon_sym_DQUOTE, anon_sym_SQUOTE,
       anon_sym_r_DQUOTE, anon_sym_r_SQUOTE, anon_sym_QMARK, anon_sym_LT, anon_sym_GT,
       anon_sym_PIPE, anon_sym_AMP, anon_sym_GT_GT, anon_sym_SLASH, anon_sym_BANG, anon_sym_DOT,
       anon_sym_QMARK_DOT]), (ACTIONS 1971, 37, [anon_sym_DQUOTE_DQUOTE_DQUOTE,
       anon_sym_SQUOTE_SQUOTE_SQUOTE, anon_sym_r_DQUOTE_DQUOTE_DQUOTE,
       anon_sym_r_SQUOTE_SQUOTE_SQUOTE, anon_sym_RBRACE, anon_sym_LBRACK, anon_sym_COMMA,
       anon_sym_RBRACK, anon_sym_COLON, anon_sym_LPAREN, anon_sym_RPAREN, anon_sym_QMARK_QMARK,
       sym_equality_operator, anon_sym_LT_EQ, anon_sym_GT_EQ, anon_sym_CARET, anon_sym_LT_LT,
       anon_sym_GT_GT_GT, sym__additive_operator, anon_sym_STAR, anon_sym_PERCENT,
       anon_sym_TILDE_SLASH, anon_sym_is, anon_sym_as, anon_sym_DOT_DOT, anon_sym_QMARK_DOT_DOT,
       anon_sym_SEMI, anon_sym_EQ_GT, anon_sym_when, anon_sym_if, anon_sym_case, anon_sym_else,
       anon_sym_show, anon_sym_hide, anon_sym_deferred, anon_sym_AMP_AMP, anon_sym_PIPE_PIPE])])]"

lemma small_run_96: "small_run 630 13920 ts_small_parse_table_96 632 14090"
  by (simp add: small_simps ts_small_parse_table_96_def)

definition ts_small_parse_table_97 :: "small_group list" where
  "ts_small_parse_table_97 = [
     (14090, 8, [(ACTIONS 3, 1, [anon_sym_SLASH_SLASH]), (ACTIONS 5, 1, [anon_sym_SLASH_STAR]),
       (ACTIONS 7, 1, [anon_sym_SLASH_SLASH_SLASH]), (ACTIONS 9, 1, [sym__block_comment]),
       (ACTIONS 11, 1, [sym__documentation_block_comment]), (STATE 632, 2, [sym_comment,
       sym_documentation_comment]), (ACTIONS 1973, 14, [anon_sym_DQUOTE, anon_sym_SQUOTE,
       anon_sym_r_DQUOTE, anon_sym_r_SQUOTE, anon_sym_QMARK, anon_sym_LT, anon_sym_GT,
       anon_sym_PIPE, anon_sym_AMP, anon_sym_GT_GT, anon_sym_SLASH, anon_sym_BANG, anon_sym_DOT,
       anon_sym_QMARK_DOT]), (ACTIONS 1975, 37, [anon_sym_DQUOTE_DQUOTE_DQUOTE,
       anon_sym_SQUOTE_SQUOTE_SQUOTE, anon_sym_r_DQUOTE_DQUOTE_DQUOTE,
       anon_sym_r_SQUOTE_SQUOTE_SQUOTE, anon_sym_RBRACE, anon_sym_LBRACK, anon_sym_COMMA,
       anon_sym_RBRACK, anon_sym_COLON, anon_sym_LPAREN, anon_sym_RPAREN, anon_sym_QMARK_QMARK,
       sym_equality_operator, anon_sym_LT_EQ, anon_sym_GT_EQ, anon_sym_CARET, anon_sym_LT_LT,
       anon_sym_GT_GT_GT, sym__additive_operator, anon_sym_STAR, anon_sym_PERCENT,
       anon_sym_TILDE_SLASH, anon_sym_is, anon_sym_as, anon_sym_DOT_DOT, anon_sym_QMARK_DOT_DOT,
       anon_sym_SEMI, anon_sym_EQ_GT, anon_sym_when, anon_sym_if, anon_sym_case, anon_sym_else,
       anon_sym_show, anon_sym_hide, anon_sym_deferred, anon_sym_AMP_AMP, anon_sym_PIPE_PIPE])]),
     (14165, 8, [(ACTIONS 3, 1, [anon_sym_SLASH_SLASH]), (ACTIONS 5, 1, [anon_sym_SLASH_STAR]),
       (ACTIONS 7, 1, [anon_sym_SLASH_SLASH_SLASH]), (ACTIONS 9, 1, [sym__block_comment]),
       (ACTIONS 11, 1, [sym__documentation_block_comment]), (STATE 633, 2, [sym_comment,
       sym_documentation_comment]), (ACTIONS 1977, 14, [anon_sym_DQUOTE, anon_sym_SQUOTE,
       anon_sym_r_DQUOTE, anon_sym_r_SQUOTE, anon_sym_QMARK, anon_sym_LT, anon_sym_GT,
       anon_sym_PIPE, anon_sym_AMP, anon_sym_GT_GT, anon_sym_SLASH, anon_sym_BANG, anon_sym_DOT,
       anon_sym_QMARK_DOT]), (ACTIONS 1979, 37, [anon_sym_DQUOTE_DQUOTE_DQUOTE,
       anon_sym_SQUOTE_SQUOTE_SQUOTE, anon_sym_r_DQUOTE_DQUOTE_DQUOTE,
       anon_sym_r_SQUOTE_SQUOTE_SQUOTE, anon_sym_RBRACE, anon_sym_LBRACK, anon_sym_COMMA,
       anon_sym_RBRACK, anon_sym_COLON, anon_sym_LPAREN, anon_sym_RPAREN, anon_sym_QMARK_QMARK,
       sym_equality_operator, anon_sym_LT_EQ, anon_sym_GT_EQ, anon_sym_CARET, anon_sym_LT_LT,
       anon_sym_GT_GT_GT, sym__additive_operator, anon_sym_STAR, anon_sym_PERCENT,
       anon_sym_TILDE_SLASH, anon_sym_is, anon_sym_as, anon_sym_DOT_DOT, anon_sym_QMARK_DOT_DOT,
       anon_sym_SEMI, anon_sym_EQ_GT, anon_sym_when, anon_sym_if, anon_sym_case, anon_sym_else,
       anon_sym_show, anon_sym_hide, anon_sym_deferred, anon_sym_AMP_AMP, anon_sym_PIPE_PIPE])])]"

lemma small_run_97: "small_run 632 14090 ts_small_parse_table_97 634 14240"
  by (simp add: small_simps ts_small_parse_table_97_def)

definition ts_small_parse_table_98 :: "small_group list" where
  "ts_small_parse_table_98 = [
     (14240, 8, [(ACTIONS 3, 1, [anon_sym_SLASH_SLASH]), (ACTIONS 5, 1, [anon_sym_SLASH_STAR]),
       (ACTIONS 7, 1, [anon_sym_SLASH_SLASH_SLASH]), (ACTIONS 9, 1, [sym__block_comment]),
       (ACTIONS 11, 1, [sym__documentation_block_comment]), (STATE 634, 2, [sym_comment,
       sym_documentation_comment]), (ACTIONS 1981, 14, [anon_sym_DQUOTE, anon_sym_SQUOTE,
       anon_sym_r_DQUOTE, anon_sym_r_SQUOTE, anon_sym_QMARK, anon_sym_LT, anon_sym_GT,
       anon_sym_PIPE, anon_sym_AMP, anon_sym_GT_GT, anon_sym_SLASH, anon_sym_BANG, anon_sym_DOT,
       anon_sym_QMARK_DOT]), (ACTIONS 1983, 37, [anon_sym_DQUOTE_DQUOTE_DQUOTE,
       anon_sym_SQUOTE_SQUOTE_SQUOTE, anon_sym_r_DQUOTE_DQUOTE_DQUOTE,
       anon_sym_r_SQUOTE_SQUOTE_SQUOTE, anon_sym_RBRACE, anon_sym_LBRACK, anon_sym_COMMA,
       anon_sym_RBRACK, anon_sym_COLON, anon_sym_LPAREN, anon_sym_RPAREN, anon_sym_QMARK_QMARK,
       sym_equality_operator, anon_sym_LT_EQ, anon_sym_GT_EQ, anon_sym_CARET, anon_sym_LT_LT,
       anon_sym_GT_GT_GT, sym__additive_operator, anon_sym_STAR, anon_sym_PERCENT,
       anon_sym_TILDE_SLASH, anon_sym_is, anon_sym_as, anon_sym_DOT_DOT, anon_sym_QMARK_DOT_DOT,
       anon_sym_SEMI, anon_sym_EQ_GT, anon_sym_when, anon_sym_if, anon_sym_case, anon_sym_else,
       anon_sym_show, anon_sym_hide, anon_sym_deferred, anon_sym_AMP_AMP, anon_sym_PIPE_PIPE])]),
     (14315, 8, [(ACTIONS 3, 1, [anon_sym_SLASH_SLASH]), (ACTIONS 5, 1, [anon_sym_SLASH_STAR]),
       (ACTIONS 7, 1, [anon_sym_SLASH_SLASH_SLASH]), (ACTIONS 9, 1, [sym__block_comment]),
       (ACTIONS 11, 1, [sym__documentation_block_comment]), (STATE 635, 2, [sym_comment,
       sym_documentation_comment]), (ACTIONS 1985, 14, [anon_sym_DQUOTE, anon_sym_SQUOTE,
       anon_sym_r_DQUOTE, anon_sym_r_SQUOTE, anon_sym_QMARK, anon_sym_LT, anon_sym_GT,
       anon_sym_PIPE, anon_sym_AMP, anon_sym_GT_GT, anon_sym_SLASH, anon_sym_BANG, anon_sym_DOT,
       anon_sym_QMARK_DOT]), (ACTIONS 1987, 37, [anon_sym_DQUOTE_DQUOTE_DQUOTE,
       anon_sym_SQUOTE_SQUOTE_SQUOTE, anon_sym_r_DQUOTE_DQUOTE_DQUOTE,
       anon_sym_r_SQUOTE_SQUOTE_SQUOTE, anon_sym_RBRACE, anon_sym_LBRACK, anon_sym_COMMA,
       anon_sym_RBRACK, anon_sym_COLON, anon_sym_LPAREN, anon_sym_RPAREN, anon_sym_QMARK_QMARK,
       sym_equality_operator, anon_sym_LT_EQ, anon_sym_GT_EQ, anon_sym_CARET, anon_sym_LT_LT,
       anon_sym_GT_GT_GT, sym__additive_operator, anon_sym_STAR, anon_sym_PERCENT,
       anon_sym_TILDE_SLASH, anon_sym_is, anon_sym_as, anon_sym_DOT_DOT, anon_sym_QMARK_DOT_DOT,
       anon_sym_SEMI, anon_sym_EQ_GT, anon_sym_when, anon_sym_if, anon_sym_case, anon_sym_else,
       anon_sym_show, anon_sym_hide, anon_sym_deferred, anon_sym_AMP_AMP, anon_sym_PIPE_PIPE])])]"

lemma small_run_98: "small_run 634 14240 ts_small_parse_table_98 636 14390"
  by (simp add: small_simps ts_small_parse_table_98_def)

definition ts_small_parse_table_99 :: "small_group list" where
  "ts_small_parse_table_99 = [
     (14390, 8, [(ACTIONS 3, 1, [anon_sym_SLASH_SLASH]), (ACTIONS 5, 1, [anon_sym_SLASH_STAR]),
       (ACTIONS 7, 1, [anon_sym_SLASH_SLASH_SLASH]), (ACTIONS 9, 1, [sym__block_comment]),
       (ACTIONS 11, 1, [sym__documentation_block_comment]), (STATE 636, 2, [sym_comment,
       sym_documentation_comment]), (ACTIONS 1989, 14, [anon_sym_DQUOTE, anon_sym_SQUOTE,
       anon_sym_r_DQUOTE, anon_sym_r_SQUOTE, anon_sym_QMARK, anon_sym_LT, anon_sym_GT,
       anon_sym_PIPE, anon_sym_AMP, anon_sym_GT_GT, anon_sym_SLASH, anon_sym_BANG, anon_sym_DOT,
       anon_sym_QMARK_DOT]), (ACTIONS 1991, 37, [anon_sym_DQUOTE_DQUOTE_DQUOTE,
       anon_sym_SQUOTE_SQUOTE_SQUOTE, anon_sym_r_DQUOTE_DQUOTE_DQUOTE,
       anon_sym_r_SQUOTE_SQUOTE_SQUOTE, anon_sym_RBRACE, anon_sym_LBRACK, anon_sym_COMMA,
       anon_sym_RBRACK, anon_sym_COLON, anon_sym_LPAREN, anon_sym_RPAREN, anon_sym_QMARK_QMARK,
       sym_equality_operator, anon_sym_LT_EQ, anon_sym_GT_EQ, anon_sym_CARET, anon_sym_LT_LT,
       anon_sym_GT_GT_GT, sym__additive_operator, anon_sym_STAR, anon_sym_PERCENT,
       anon_sym_TILDE_SLASH, anon_sym_is, anon_sym_as, anon_sym_DOT_DOT, anon_sym_QMARK_DOT_DOT,
       anon_sym_SEMI, anon_sym_EQ_GT, anon_sym_when, anon_sym_if, anon_sym_case, anon_sym_else,
       anon_sym_show, anon_sym_hide, anon_sym_deferred, anon_sym_AMP_AMP, anon_sym_PIPE_PIPE])]),
     (14465, 8, [(ACTIONS 3, 1, [anon_sym_SLASH_SLASH]), (ACTIONS 5, 1, [anon_sym_SLASH_STAR]),
       (ACTIONS 7, 1, [anon_sym_SLASH_SLASH_SLASH]), (ACTIONS 9, 1, [sym__block_comment]),
       (ACTIONS 11, 1, [sym__documentation_block_comment]), (STATE 637, 2, [sym_comment,
       sym_documentation_comment]), (ACTIONS 1725, 21, [anon_sym_EQ, anon_sym_QMARK_QMARK,
       anon_sym_QMARK, anon_sym_LT, anon_sym_GT, anon_sym_PIPE, anon_sym_CARET, anon_sym_AMP,
       anon_sym_LT_LT, anon_sym_GT_GT, anon_sym_GT_GT_GT, sym__additive_operator, anon_sym_STAR,
       anon_sym_SLASH, anon_sym_PERCENT, anon_sym_TILDE_SLASH, anon_sym_BANG, anon_sym_as,
       anon_sym_DOT, anon_sym_QMARK_DOT, anon_sym_async]), (ACTIONS 1723, 29, [anon_sym_LBRACE,
       anon_sym_LBRACK, anon_sym_COMMA, anon_sym_LPAREN, anon_sym_PLUS_EQ, anon_sym_DASH_EQ,
       anon_sym_STAR_EQ, anon_sym_SLASH_EQ, anon_sym_PERCENT_EQ, anon_sym_TILDE_SLASH_EQ,
       anon_sym_LT_LT_EQ, anon_sym_GT_GT_EQ, anon_sym_GT_GT_GT_EQ, anon_sym_AMP_EQ,
       anon_sym_CARET_EQ, anon_sym_PIPE_EQ, anon_sym_QMARK_QMARK_EQ, sym_equality_operator,
       anon_sym_LT_EQ, anon_sym_GT_EQ, anon_sym_is, anon_sym_DOT_DOT, anon_sym_QMARK_DOT_DOT,
       anon_sym_SEMI, anon_sym_EQ_GT, anon_sym_async_STAR, anon_sym_sync_STAR, anon_sym_AMP_AMP,
       anon_sym_PIPE_PIPE])])]"

lemma small_run_99: "small_run 636 14390 ts_small_parse_table_99 638 14539"
  by (simp add: small_simps ts_small_parse_table_99_def)

definition ts_small_parse_table_100 :: "small_group list" where
  "ts_small_parse_table_100 = [
     (14539, 8, [(ACTIONS 3, 1, [anon_sym_SLASH_SLASH]), (ACTIONS 5, 1, [anon_sym_SLASH_STAR]),
       (ACTIONS 7, 1, [anon_sym_SLASH_SLASH_SLASH]), (ACTIONS 9, 1, [sym__block_comment]),
       (ACTIONS 11, 1, [sym__documentation_block_comment]), (STATE 638, 2, [sym_comment,
       sym_documentation_comment]), (ACTIONS 1659, 21, [anon_sym_EQ, anon_sym_QMARK_QMARK,
       anon_sym_QMARK, anon_sym_LT, anon_sym_GT, anon_sym_PIPE, anon_sym_CARET, anon_sym_AMP,
       anon_sym_LT_LT, anon_sym_GT_GT, anon_sym_GT_GT_GT, sym__additive_operator, anon_sym_STAR,
       anon_sym_SLASH, anon_sym_PERCENT, anon_sym_TILDE_SLASH, anon_sym_BANG, anon_sym_as,
       anon_sym_DOT, anon_sym_QMARK_DOT, anon_sym_async]), (ACTIONS 1657, 29, [anon_sym_LBRACE,
       anon_sym_LBRACK, anon_sym_COMMA, anon_sym_LPAREN, anon_sym_PLUS_EQ, anon_sym_DASH_EQ,
       anon_sym_STAR_EQ, anon_sym_SLASH_EQ, anon_sym_PERCENT_EQ, anon_sym_TILDE_SLASH_EQ,
       anon_sym_LT_LT_EQ, anon_sym_GT_GT_EQ, anon_sym_GT_GT_GT_EQ, anon_sym_AMP_EQ,
       anon_sym_CARET_EQ, anon_sym_PIPE_EQ, anon_sym_QMARK_QMARK_EQ, sym_equality_operator,
       anon_sym_LT_EQ, anon_sym_GT_EQ, anon_sym_is, anon_sym_DOT_DOT, anon_sym_QMARK_DOT_DOT,
       anon_sym_SEMI, anon_sym_EQ_GT, anon_sym_async_STAR, anon_sym_sync_STAR, anon_sym_AMP_AMP,
       anon_sym_PIPE_PIPE])]),
     (14613, 8, [(ACTIONS 3, 1, [anon_sym_SLASH_SLASH]), (ACTIONS 5, 1, [anon_sym_SLASH_STAR]),
       (ACTIONS 7, 1, [anon_sym_SLASH_SLASH_SLASH]), (ACTIONS 9, 1, [sym__block_comment]),
       (ACTIONS 11, 1, [sym__documentation_block_comment]), (STATE 639, 2, [sym_comment,
       sym_documentation_comment]), (ACTIONS 1739, 21, [anon_sym_EQ, anon_sym_QMARK_QMARK,
       anon_sym_QMARK, anon_sym_LT, anon_sym_GT, anon_sym_PIPE, anon_sym_CARET, anon_sym_AMP,
       anon_sym_LT_LT, anon_sym_GT_GT, anon_sym_GT_GT_GT, sym__additive_operator, anon_sym_STAR,
       anon_sym_SLASH, anon_sym_PERCENT, anon_sym_TILDE_SLASH, anon_sym_BANG, anon_sym_as,
       anon_sym_DOT, anon_sym_QMARK_DOT, anon_sym_async]), (ACTIONS 1737, 29, [anon_sym_LBRACE,
       anon_sym_LBRACK, anon_sym_COMMA, anon_sym_LPAREN, anon_sym_PLUS_EQ, anon_sym_DASH_EQ,
       anon_sym_STAR_EQ, anon_sym_SLASH_EQ, anon_sym_PERCENT_EQ, anon_sym_TILDE_SLASH_EQ,
       anon_sym_LT_LT_EQ, anon_sym_GT_GT_EQ, anon_sym_GT_GT_GT_EQ, anon_sym_AMP_EQ,
       anon_sym_CARET_EQ, anon_sym_PIPE_EQ, anon_sym_QMARK_QMARK_EQ, sym_equality_operator,
       anon_sym_LT_EQ, anon_sym_GT_EQ, anon_sym_is, anon_sym_DOT_DOT, anon_sym_QMARK_DOT_DOT,
       anon_sym_SEMI, anon_sym_EQ_GT, anon_sym_async_STAR, anon_sym_sync_STAR, anon_sym_AMP_AMP,
       anon_sym_PIPE_PIPE])])]"

lemma small_run_100: "small_run 638 14539 ts_small_parse_table_100 640 14687"
  by (simp add: small_simps ts_small_parse_table_100_def)

definition ts_small_parse_table_101 :: "small_group list" where
  "ts_small_parse_table_101 = [
     (14687, 13, [(ACTIONS 3, 1, [anon_sym_SLASH_SLASH]), (ACTIONS 5, 1,
       [anon_sym_SLASH_STAR]), (ACTIONS 7, 1, [anon_sym_SLASH_SLASH_SLASH]), (ACTIONS 9, 1,
       [sym__block_comment]), (ACTIONS 11, 1, [sym__documentation_block_comment]), (ACTIONS 1328,
       1, [anon_sym_EQ]), (ACTIONS 1334, 1, [anon_sym_LT]), (ACTIONS 1993, 1, [anon_sym_DOT]),
       (STATE 1612, 1, [sym__type_dot_identifier]), (STATE 640, 2, [sym_comment,
       sym_documentation_comment]), (ACTIONS 1330, 14, [anon_sym_PLUS_EQ, anon_sym_DASH_EQ,
       anon_sym_STAR_EQ, anon_sym_SLASH_EQ, anon_sym_PERCENT_EQ, anon_sym_TILDE_SLASH_EQ,
       anon_sym_LT_LT_EQ, anon_sym_GT_GT_EQ, anon_sym_GT_GT_GT_EQ, anon_sym_AMP_EQ,
       anon_sym_CARET_EQ, anon_sym_PIPE_EQ, anon_sym_QMARK_QMARK_EQ, sym_increment_operator]),
       (ACTIONS 1332, 15, [anon_sym_QMARK_QMARK, anon_sym_QMARK, anon_sym_GT, anon_sym_PIPE,
       anon_sym_CARET, anon_sym_AMP, anon_sym_LT_LT, anon_sym_GT_GT, anon_sym_GT_GT_GT,
       sym__additive_operator, anon_sym_STAR, anon_sym_SLASH, anon_sym_PERCENT,
       anon_sym_TILDE_SLASH, anon_sym_BANG]), (ACTIONS 1322, 17, [anon_sym_RBRACE,
       anon_sym_LBRACK, anon_sym_COMMA, anon_sym_RBRACK, anon_sym_COLON, anon_sym_LPAREN,
       anon_sym_RPAREN, sym_equality_operator, anon_sym_LT_EQ, anon_sym_GT_EQ, anon_sym_is,
       anon_sym_as, anon_sym_QMARK_DOT, anon_sym_EQ_GT, anon_sym_when, anon_sym_AMP_AMP,
       anon_sym_PIPE_PIPE])]),
     (14771, 8, [(ACTIONS 3, 1, [anon_sym_SLASH_SLASH]), (ACTIONS 5, 1, [anon_sym_SLASH_STAR]),
       (ACTIONS 7, 1, [anon_sym_SLASH_SLASH_SLASH]), (ACTIONS 9, 1, [sym__block_comment]),
       (ACTIONS 11, 1, [sym__documentation_block_comment]), (STATE 641, 2, [sym_comment,
       sym_documentation_comment]), (ACTIONS 1670, 21, [anon_sym_EQ, anon_sym_QMARK_QMARK,
       anon_sym_QMARK, anon_sym_LT, anon_sym_GT, anon_sym_PIPE, anon_sym_CARET, anon_sym_AMP,
       anon_sym_LT_LT, anon_sym_GT_GT, anon_sym_GT_GT_GT, sym__additive_operator, anon_sym_STAR,
       anon_sym_SLASH, anon_sym_PERCENT, anon_sym_TILDE_SLASH, anon_sym_BANG, anon_sym_as,
       anon_sym_DOT, anon_sym_QMARK_DOT, anon_sym_async]), (ACTIONS 1668, 29, [anon_sym_LBRACE,
       anon_sym_LBRACK, anon_sym_COMMA, anon_sym_LPAREN, anon_sym_PLUS_EQ, anon_sym_DASH_EQ,
       anon_sym_STAR_EQ, anon_sym_SLASH_EQ, anon_sym_PERCENT_EQ, anon_sym_TILDE_SLASH_EQ,
       anon_sym_LT_LT_EQ, anon_sym_GT_GT_EQ, anon_sym_GT_GT_GT_EQ, anon_sym_AMP_EQ,
       anon_sym_CARET_EQ, anon_sym_PIPE_EQ, anon_sym_QMARK_QMARK_EQ, sym_equality_operator,
       anon_sym_LT_EQ, anon_sym_GT_EQ, anon_sym_is, anon_sym_DOT_DOT, anon_sym_QMARK_DOT_DOT,
       anon_sym_SEMI, anon_sym_EQ_GT, anon_sym_async_STAR, anon_sym_sync_STAR, anon_sym_AMP_AMP,
       anon_sym_PIPE_PIPE])])]"

lemma small_run_101: "small_run 640 14687 ts_small_parse_table_101 642 14845"
  by (simp add: small_simps ts_small_parse_table_101_def)

definition ts_small_parse_table_102 :: "small_group list" where
  "ts_small_parse_table_102 = [
     (14845, 16, [(ACTIONS 3, 1, [anon_sym_SLASH_SLASH]), (ACTIONS 5, 1,
       [anon_sym_SLASH_STAR]), (ACTIONS 7, 1, [anon_sym_SLASH_SLASH_SLASH]), (ACTIONS 9, 1,
       [sym__block_comment]), (ACTIONS 11, 1, [sym__documentation_block_comment]), (ACTIONS 1328,
       1, [anon_sym_EQ]), (ACTIONS 1341, 1, [anon_sym_DOT]), (ACTIONS 1502, 1, [anon_sym_COLON]),
       (STATE 1612, 1, [sym__type_dot_identifier]), (ACTIONS 1320, 2, [anon_sym_Function,
       sym_identifier]), (ACTIONS 1334, 2, [anon_sym_QMARK, anon_sym_LT]), (STATE 642, 2,
       [sym_comment, sym_documentation_comment]), (ACTIONS 1516, 3, [anon_sym_COMMA,
       anon_sym_LPAREN, anon_sym_RPAREN]), (ACTIONS 1322, 8, [anon_sym_LBRACK,
       sym_equality_operator, anon_sym_LT_EQ, anon_sym_GT_EQ, anon_sym_DOT_DOT,
       anon_sym_QMARK_DOT_DOT, anon_sym_AMP_AMP, anon_sym_PIPE_PIPE]), (ACTIONS 1330, 14,
       [anon_sym_PLUS_EQ, anon_sym_DASH_EQ, anon_sym_STAR_EQ, anon_sym_SLASH_EQ,
       anon_sym_PERCENT_EQ, anon_sym_TILDE_SLASH_EQ, anon_sym_LT_LT_EQ, anon_sym_GT_GT_EQ,
       anon_sym_GT_GT_GT_EQ, anon_sym_AMP_EQ, anon_sym_CARET_EQ, anon_sym_PIPE_EQ,
       anon_sym_QMARK_QMARK_EQ, sym_increment_operator]), (ACTIONS 1332, 17,
       [anon_sym_QMARK_QMARK, anon_sym_GT, anon_sym_PIPE, anon_sym_CARET, anon_sym_AMP,
       anon_sym_LT_LT, anon_sym_GT_GT, anon_sym_GT_GT_GT, sym__additive_operator, anon_sym_STAR,
       anon_sym_SLASH, anon_sym_PERCENT, anon_sym_TILDE_SLASH, anon_sym_BANG, anon_sym_is,
       anon_sym_as, anon_sym_QMARK_DOT])])]"

lemma small_run_102: "small_run 642 14845 ts_small_parse_table_102 643 14935"
  by (simp add: small_simps ts_small_parse_table_102_def)

definition ts_small_parse_table_103 :: "small_group list" where
  "ts_small_parse_table_103 = [
     (14935, 24, [(ACTIONS 3, 1, [anon_sym_SLASH_SLASH]), (ACTIONS 5, 1,
       [anon_sym_SLASH_STAR]), (ACTIONS 7, 1, [anon_sym_SLASH_SLASH_SLASH]), (ACTIONS 9, 1,
       [sym__block_comment]), (ACTIONS 11, 1, [sym__documentation_block_comment]), (ACTIONS 1999,
       1, [anon_sym_LBRACK]), (ACTIONS 2001, 1, [anon_sym_LPAREN]), (ACTIONS 2003, 1,
       [anon_sym_QMARK]), (ACTIONS 2005, 1, [anon_sym_LT]), (ACTIONS 2009, 1, [anon_sym_BANG]),
       (ACTIONS 2011, 1, [anon_sym_DOT]), (ACTIONS 2013, 1, [anon_sym_QMARK_DOT]), (STATE 552, 1,
       [sym_index_selector]), (STATE 570, 1, [sym__assignable_selector]), (STATE 670, 1,
       [aux_sym__assignable_selector_part_repeat1]), (STATE 869, 1, [sym_type_arguments]), (STATE
       964, 1, [sym_selector]), (STATE 992, 1, [sym_arguments]), (STATE 1990, 1,
       [sym__assignable_selector_part]), (STATE 567, 2, [sym_unconditional_assignable_selector,
       sym_conditional_assignable_selector]), (STATE 643, 2, [sym_comment,
       sym_documentation_comment]), (STATE 995, 2, [sym__exclamation_operator,
       sym_argument_part]), (ACTIONS 2007, 5, [anon_sym_GT, anon_sym_PIPE, anon_sym_AMP,
       anon_sym_GT_GT, anon_sym_SLASH]), (ACTIONS 1997, 27, [anon_sym_RBRACE, anon_sym_COMMA,
       anon_sym_RBRACK, anon_sym_COLON, anon_sym_RPAREN, anon_sym_QMARK_QMARK,
       sym_equality_operator, anon_sym_LT_EQ, anon_sym_GT_EQ, anon_sym_CARET, anon_sym_LT_LT,
       anon_sym_GT_GT_GT, sym__additive_operator, anon_sym_STAR, anon_sym_PERCENT,
       anon_sym_TILDE_SLASH, anon_sym_is, anon_sym_as, anon_sym_DOT_DOT, anon_sym_QMARK_DOT_DOT,
       anon_sym_SEMI, anon_sym_EQ_GT, anon_sym_when, anon_sym_case, anon_sym_else,
       anon_sym_AMP_AMP, anon_sym_PIPE_PIPE])]),
     (15041, 8, [(ACTIONS 3, 1, [anon_sym_SLASH_SLASH]), (ACTIONS 5, 1, [anon_sym_SLASH_STAR]),
       (ACTIONS 7, 1, [anon_sym_SLASH_SLASH_SLASH]), (ACTIONS 9, 1, [sym__block_comment]),
       (ACTIONS 11, 1, [sym__documentation_block_comment]), (STATE 644, 2, [sym_comment,
       sym_documentation_comment]), (ACTIONS 1821, 21, [anon_sym_EQ, anon_sym_QMARK_QMARK,
       anon_sym_QMARK, anon_sym_LT, anon_sym_GT, anon_sym_PIPE, anon_sym_CARET, anon_sym_AMP,
       anon_sym_LT_LT, anon_sym_GT_GT, anon_sym_GT_GT_GT, sym__additive_operator, anon_sym_STAR,
       anon_sym_SLASH, anon_sym_PERCENT, anon_sym_TILDE_SLASH, anon_sym_BANG, anon_sym_as,
       anon_sym_DOT, anon_sym_QMARK_DOT, anon_sym_async]), (ACTIONS 1819, 29, [anon_sym_LBRACE,
       anon_sym_LBRACK, anon_sym_COMMA, anon_sym_LPAREN, anon_sym_PLUS_EQ, anon_sym_DASH_EQ,
       anon_sym_STAR_EQ, anon_sym_SLASH_EQ, anon_sym_PERCENT_EQ, anon_sym_TILDE_SLASH_EQ,
       anon_sym_LT_LT_EQ, anon_sym_GT_GT_EQ, anon_sym_GT_GT_GT_EQ, anon_sym_AMP_EQ,
       anon_sym_CARET_EQ, anon_sym_PIPE_EQ, anon_sym_QMARK_QMARK_EQ, sym_equality_operator,
       anon_sym_LT_EQ, anon_sym_GT_EQ, anon_sym_is, anon_sym_DOT_DOT, anon_sym_QMARK_DOT_DOT,
       anon_sym_SEMI, anon_sym_EQ_GT, anon_sym_async_STAR, anon_sym_sync_STAR, anon_sym_AMP_AMP,
       anon_sym_PIPE_PIPE])])]"

lemma small_run_103: "small_run 643 14935 ts_small_parse_table_103 645 15115"
  by (simp add: small_simps ts_small_parse_table_103_def)

definition ts_small_parse_table_104 :: "small_group list" where
  "ts_small_parse_table_104 = [
     (15115, 17, [(ACTIONS 3, 1, [anon_sym_SLASH_SLASH]), (ACTIONS 5, 1,
       [anon_sym_SLASH_STAR]), (ACTIONS 7, 1, [anon_sym_SLASH_SLASH_SLASH]), (ACTIONS 9, 1,
       [sym__block_comment]), (ACTIONS 11, 1, [sym__documentation_block_comment]), (ACTIONS 1328,
       1, [anon_sym_EQ]), (ACTIONS 1341, 1, [anon_sym_DOT]), (ACTIONS 1502, 1, [anon_sym_COLON]),
       (ACTIONS 2015, 1, [anon_sym_RPAREN]), (STATE 1612, 1, [sym__type_dot_identifier]),
       (ACTIONS 1320, 2, [anon_sym_Function, sym_identifier]), (ACTIONS 1334, 2, [anon_sym_QMARK,
       anon_sym_LT]), (ACTIONS 1516, 2, [anon_sym_COMMA, anon_sym_LPAREN]), (STATE 645, 2,
       [sym_comment, sym_documentation_comment]), (ACTIONS 1322, 8, [anon_sym_LBRACK,
       sym_equality_operator, anon_sym_LT_EQ, anon_sym_GT_EQ, anon_sym_DOT_DOT,
       anon_sym_QMARK_DOT_DOT, anon_sym_AMP_AMP, anon_sym_PIPE_PIPE]), (ACTIONS 1330, 14,
       [anon_sym_PLUS_EQ, anon_sym_DASH_EQ, anon_sym_STAR_EQ, anon_sym_SLASH_EQ,
       anon_sym_PERCENT_EQ, anon_sym_TILDE_SLASH_EQ, anon_sym_LT_LT_EQ, anon_sym_GT_GT_EQ,
       anon_sym_GT_GT_GT_EQ, anon_sym_AMP_EQ, anon_sym_CARET_EQ, anon_sym_PIPE_EQ,
       anon_sym_QMARK_QMARK_EQ, sym_increment_operator]), (ACTIONS 1332, 17,
       [anon_sym_QMARK_QMARK, anon_sym_GT, anon_sym_PIPE, anon_sym_CARET, anon_sym_AMP,
       anon_sym_LT_LT, anon_sym_GT_GT, anon_sym_GT_GT_GT, sym__additive_operator, anon_sym_STAR,
       anon_sym_SLASH, anon_sym_PERCENT, anon_sym_TILDE_SLASH, anon_sym_BANG, anon_sym_is,
       anon_sym_as, anon_sym_QMARK_DOT])]),
     (15207, 8, [(ACTIONS 3, 1, [anon_sym_SLASH_SLASH]), (ACTIONS 5, 1, [anon_sym_SLASH_STAR]),
       (ACTIONS 7, 1, [anon_sym_SLASH_SLASH_SLASH]), (ACTIONS 9, 1, [sym__block_comment]),
       (ACTIONS 11, 1, [sym__documentation_block_comment]), (STATE 646, 2, [sym_comment,
       sym_documentation_comment]), (ACTIONS 1663, 21, [anon_sym_EQ, anon_sym_QMARK_QMARK,
       anon_sym_QMARK, anon_sym_LT, anon_sym_GT, anon_sym_PIPE, anon_sym_CARET, anon_sym_AMP,
       anon_sym_LT_LT, anon_sym_GT_GT, anon_sym_GT_GT_GT, sym__additive_operator, anon_sym_STAR,
       anon_sym_SLASH, anon_sym_PERCENT, anon_sym_TILDE_SLASH, anon_sym_BANG, anon_sym_as,
       anon_sym_DOT, anon_sym_QMARK_DOT, anon_sym_async]), (ACTIONS 1661, 29, [anon_sym_LBRACE,
       anon_sym_LBRACK, anon_sym_COMMA, anon_sym_LPAREN, anon_sym_PLUS_EQ, anon_sym_DASH_EQ,
       anon_sym_STAR_EQ, anon_sym_SLASH_EQ, anon_sym_PERCENT_EQ, anon_sym_TILDE_SLASH_EQ,
       anon_sym_LT_LT_EQ, anon_sym_GT_GT_EQ, anon_sym_GT_GT_GT_EQ, anon_sym_AMP_EQ,
       anon_sym_CARET_EQ, anon_sym_PIPE_EQ, anon_sym_QMARK_QMARK_EQ, sym_equality_operator,
       anon_sym_LT_EQ, anon_sym_GT_EQ, anon_sym_is, anon_sym_DOT_DOT, anon_sym_QMARK_DOT_DOT,
       anon_sym_SEMI, anon_sym_EQ_GT, anon_sym_async_STAR, anon_sym_sync_STAR, anon_sym_AMP_AMP,
       anon_sym_PIPE_PIPE])])]"

lemma small_run_104: "small_run 645 15115 ts_small_parse_table_104 647 15281"
  by (simp add: small_simps ts_small_parse_table_104_def)

definition ts_small_parse_table_part_1 :: "small_group list" where
  "ts_small_parse_table_part_1 =
     ts_small_parse_table_1 @ ts_small_parse_table_2 @ ts_small_parse_table_3 @
     ts_small_parse_table_4 @ ts_small_parse_table_5 @ ts_small_parse_table_6 @
     ts_small_parse_table_7 @ ts_small_parse_table_8 @ ts_small_parse_table_9 @
     ts_small_parse_table_10 @ ts_small_parse_table_11 @ ts_small_parse_table_12 @
     ts_small_parse_table_13 @ ts_small_parse_table_14 @ ts_small_parse_table_15 @
     ts_small_parse_table_16 @ ts_small_parse_table_17 @ ts_small_parse_table_18 @
     ts_small_parse_table_19 @ ts_small_parse_table_20 @ ts_small_parse_table_21 @
     ts_small_parse_table_22 @ ts_small_parse_table_23 @ ts_small_parse_table_24 @
     ts_small_parse_table_25 @ ts_small_parse_table_26 @ ts_small_parse_table_27 @
     ts_small_parse_table_28 @ ts_small_parse_table_29 @ ts_small_parse_table_30 @
     ts_small_parse_table_31 @ ts_small_parse_table_32 @ ts_small_parse_table_33 @
     ts_small_parse_table_34 @ ts_small_parse_table_35 @ ts_small_parse_table_36 @
     ts_small_parse_table_37 @ ts_small_parse_table_38 @ ts_small_parse_table_39 @
     ts_small_parse_table_40 @ ts_small_parse_table_41 @ ts_small_parse_table_42 @
     ts_small_parse_table_43 @ ts_small_parse_table_44 @ ts_small_parse_table_45 @
     ts_small_parse_table_46 @ ts_small_parse_table_47 @ ts_small_parse_table_48 @
     ts_small_parse_table_49 @ ts_small_parse_table_50 @ ts_small_parse_table_51 @
     ts_small_parse_table_52 @ ts_small_parse_table_53 @ ts_small_parse_table_54 @
     ts_small_parse_table_55 @ ts_small_parse_table_56 @ ts_small_parse_table_57 @
     ts_small_parse_table_58 @ ts_small_parse_table_59 @ ts_small_parse_table_60 @
     ts_small_parse_table_61 @ ts_small_parse_table_62 @ ts_small_parse_table_63 @
     ts_small_parse_table_64 @ ts_small_parse_table_65 @ ts_small_parse_table_66 @
     ts_small_parse_table_67 @ ts_small_parse_table_68 @ ts_small_parse_table_69 @
     ts_small_parse_table_70 @ ts_small_parse_table_71 @ ts_small_parse_table_72 @
     ts_small_parse_table_73 @ ts_small_parse_table_74 @ ts_small_parse_table_75 @
     ts_small_parse_table_76 @ ts_small_parse_table_77 @ ts_small_parse_table_78 @
     ts_small_parse_table_79 @ ts_small_parse_table_80 @ ts_small_parse_table_81 @
     ts_small_parse_table_82 @ ts_small_parse_table_83 @ ts_small_parse_table_84 @
     ts_small_parse_table_85 @ ts_small_parse_table_86 @ ts_small_parse_table_87 @
     ts_small_parse_table_88 @ ts_small_parse_table_89 @ ts_small_parse_table_90 @
     ts_small_parse_table_91 @ ts_small_parse_table_92 @ ts_small_parse_table_93 @
     ts_small_parse_table_94 @ ts_small_parse_table_95 @ ts_small_parse_table_96 @
     ts_small_parse_table_97 @ ts_small_parse_table_98 @ ts_small_parse_table_99 @
     ts_small_parse_table_100 @ ts_small_parse_table_101 @ ts_small_parse_table_102 @
     ts_small_parse_table_103 @ ts_small_parse_table_104"

lemma small_part_1: "small_run 494 0 ts_small_parse_table_part_1 647 15281"
  unfolding ts_small_parse_table_part_1_def
  by (rule small_run_append [OF small_run_1], rule small_run_append [OF small_run_2],
    rule small_run_append [OF small_run_3], rule small_run_append [OF small_run_4],
    rule small_run_append [OF small_run_5], rule small_run_append [OF small_run_6],
    rule small_run_append [OF small_run_7], rule small_run_append [OF small_run_8],
    rule small_run_append [OF small_run_9], rule small_run_append [OF small_run_10],
    rule small_run_append [OF small_run_11], rule small_run_append [OF small_run_12],
    rule small_run_append [OF small_run_13], rule small_run_append [OF small_run_14],
    rule small_run_append [OF small_run_15], rule small_run_append [OF small_run_16],
    rule small_run_append [OF small_run_17], rule small_run_append [OF small_run_18],
    rule small_run_append [OF small_run_19], rule small_run_append [OF small_run_20],
    rule small_run_append [OF small_run_21], rule small_run_append [OF small_run_22],
    rule small_run_append [OF small_run_23], rule small_run_append [OF small_run_24],
    rule small_run_append [OF small_run_25], rule small_run_append [OF small_run_26],
    rule small_run_append [OF small_run_27], rule small_run_append [OF small_run_28],
    rule small_run_append [OF small_run_29], rule small_run_append [OF small_run_30],
    rule small_run_append [OF small_run_31], rule small_run_append [OF small_run_32],
    rule small_run_append [OF small_run_33], rule small_run_append [OF small_run_34],
    rule small_run_append [OF small_run_35], rule small_run_append [OF small_run_36],
    rule small_run_append [OF small_run_37], rule small_run_append [OF small_run_38],
    rule small_run_append [OF small_run_39], rule small_run_append [OF small_run_40],
    rule small_run_append [OF small_run_41], rule small_run_append [OF small_run_42],
    rule small_run_append [OF small_run_43], rule small_run_append [OF small_run_44],
    rule small_run_append [OF small_run_45], rule small_run_append [OF small_run_46],
    rule small_run_append [OF small_run_47], rule small_run_append [OF small_run_48],
    rule small_run_append [OF small_run_49], rule small_run_append [OF small_run_50],
    rule small_run_append [OF small_run_51], rule small_run_append [OF small_run_52],
    rule small_run_append [OF small_run_53], rule small_run_append [OF small_run_54],
    rule small_run_append [OF small_run_55], rule small_run_append [OF small_run_56],
    rule small_run_append [OF small_run_57], rule small_run_append [OF small_run_58],
    rule small_run_append [OF small_run_59], rule small_run_append [OF small_run_60],
    rule small_run_append [OF small_run_61], rule small_run_append [OF small_run_62],
    rule small_run_append [OF small_run_63], rule small_run_append [OF small_run_64],
    rule small_run_append [OF small_run_65], rule small_run_append [OF small_run_66],
    rule small_run_append [OF small_run_67], rule small_run_append [OF small_run_68],
    rule small_run_append [OF small_run_69], rule small_run_append [OF small_run_70],
    rule small_run_append [OF small_run_71], rule small_run_append [OF small_run_72],
    rule small_run_append [OF small_run_73], rule small_run_append [OF small_run_74],
    rule small_run_append [OF small_run_75], rule small_run_append [OF small_run_76],
    rule small_run_append [OF small_run_77], rule small_run_append [OF small_run_78],
    rule small_run_append [OF small_run_79], rule small_run_append [OF small_run_80],
    rule small_run_append [OF small_run_81], rule small_run_append [OF small_run_82],
    rule small_run_append [OF small_run_83], rule small_run_append [OF small_run_84],
    rule small_run_append [OF small_run_85], rule small_run_append [OF small_run_86],
    rule small_run_append [OF small_run_87], rule small_run_append [OF small_run_88],
    rule small_run_append [OF small_run_89], rule small_run_append [OF small_run_90],
    rule small_run_append [OF small_run_91], rule small_run_append [OF small_run_92],
    rule small_run_append [OF small_run_93], rule small_run_append [OF small_run_94],
    rule small_run_append [OF small_run_95], rule small_run_append [OF small_run_96],
    rule small_run_append [OF small_run_97], rule small_run_append [OF small_run_98],
    rule small_run_append [OF small_run_99], rule small_run_append [OF small_run_100],
    rule small_run_append [OF small_run_101], rule small_run_append [OF small_run_102],
    rule small_run_append [OF small_run_103], rule small_run_104)

end
