(* ===== verification/Dart_Small_2.thy ===== *)
theory Dart_Small_2
  imports Dart_Items
begin

text \<open>
  The groups of \<^verbatim>\<open>ts_small_parse_table\<close> for the states 647 to 789, in blocks of at most 150 lines of
  the source, each with the check of its layout and of its entries.
\<close>

definition ts_small_parse_table_105 :: "small_group list" where
  "ts_small_parse_table_105 = [
     (15281, 8, [(ACTIONS 3, 1, [anon_sym_SLASH_SLASH]), (ACTIONS 5, 1, [anon_sym_SLASH_STAR]),
       (ACTIONS 7, 1, [anon_sym_SLASH_SLASH_SLASH]), (ACTIONS 9, 1, [sym__block_comment]),
       (ACTIONS 11, 1, [sym__documentation_block_comment]), (STATE 647, 2, [sym_comment,
       sym_documentation_comment]), (ACTIONS 1733, 21, [anon_sym_EQ, anon_sym_QMARK_QMARK,
       anon_sym_QMARK, anon_sym_LT, anon_sym_GT, anon_sym_PIPE, anon_sym_CARET, anon_sym_AMP,
       anon_sym_LT_LT, anon_sym_GT_GT, anon_sym_GT_GT_GT, sym__additive_operator, anon_sym_STAR,
       anon_sym_SLASH, anon_sym_PERCENT, anon_sym_TILDE_SLASH, anon_sym_BANG, anon_sym_as,
       anon_sym_DOT, anon_sym_QMARK_DOT, anon_sym_async]), (ACTIONS 1731, 29, [anon_sym_LBRACE,
       anon_sym_LBRACK, anon_sym_COMMA, anon_sym_LPAREN, anon_sym_PLUS_EQ, anon_sym_DASH_EQ,
       anon_sym_STAR_EQ, anon_sym_SLASH_EQ, anon_sym_PERCENT_EQ, anon_sym_TILDE_SLASH_EQ,
       anon_sym_LT_LT_EQ, anon_sym_GT_GT_EQ, anon_sym_GT_GT_GT_EQ, anon_sym_AMP_EQ,
       anon_sym_CARET_EQ, anon_sym_PIPE_EQ, anon_sym_QMARK_QMARK_EQ, sym_equality_operator,
       anon_sym_LT_EQ, anon_sym_GT_EQ, anon_sym_is, anon_sym_DOT_DOT, anon_sym_QMARK_DOT_DOT,
       anon_sym_SEMI, anon_sym_EQ_GT, anon_sym_async_STAR, anon_sym_sync_STAR, anon_sym_AMP_AMP,
       anon_sym_PIPE_PIPE])]),
     (15355, 24, [(ACTIONS 3, 1, [anon_sym_SLASH_SLASH]), (ACTIONS 5, 1,
       [anon_sym_SLASH_STAR]), (ACTIONS 7, 1, [anon_sym_SLASH_SLASH_SLASH]), (ACTIONS 9, 1,
       [sym__block_comment]), (ACTIONS 11, 1, [sym__documentation_block_comment]), (ACTIONS 2019,
       1, [anon_sym_LBRACK]), (ACTIONS 2022, 1, [anon_sym_LPAREN]), (ACTIONS 2025, 1,
       [anon_sym_QMARK]), (ACTIONS 2028, 1, [anon_sym_LT]), (ACTIONS 2033, 1, [anon_sym_BANG]),
       (ACTIONS 2036, 1, [anon_sym_DOT]), (ACTIONS 2039, 1, [anon_sym_QMARK_DOT]), (STATE 552, 1,
       [sym_index_selector]), (STATE 570, 1, [sym__assignable_selector]), (STATE 672, 1,
       [aux_sym__assignable_selector_part_repeat1]), (STATE 869, 1, [sym_type_arguments]), (STATE
       964, 1, [sym_selector]), (STATE 992, 1, [sym_arguments]), (STATE 1990, 1,
       [sym__assignable_selector_part]), (STATE 567, 2, [sym_unconditional_assignable_selector,
       sym_conditional_assignable_selector]), (STATE 648, 2, [sym_comment,
       sym_documentation_comment]), (STATE 995, 2, [sym__exclamation_operator,
       sym_argument_part]), (ACTIONS 2031, 5, [anon_sym_GT, anon_sym_PIPE, anon_sym_AMP,
       anon_sym_GT_GT, anon_sym_SLASH]), (ACTIONS 2017, 27, [anon_sym_RBRACE, anon_sym_COMMA,
       anon_sym_RBRACK, anon_sym_COLON, anon_sym_RPAREN, anon_sym_QMARK_QMARK,
       sym_equality_operator, anon_sym_LT_EQ, anon_sym_GT_EQ, anon_sym_CARET, anon_sym_LT_LT,
       anon_sym_GT_GT_GT, sym__additive_operator, anon_sym_STAR, anon_sym_PERCENT,
       anon_sym_TILDE_SLASH, anon_sym_is, anon_sym_as, anon_sym_DOT_DOT, anon_sym_QMARK_DOT_DOT,
       anon_sym_SEMI, anon_sym_EQ_GT, anon_sym_when, anon_sym_case, anon_sym_else,
       anon_sym_AMP_AMP, anon_sym_PIPE_PIPE])])]"

lemma small_run_105: "small_run 647 15281 ts_small_parse_table_105 649 15461"
  by (simp add: small_simps ts_small_parse_table_105_def)

definition ts_small_parse_table_106 :: "small_group list" where
  "ts_small_parse_table_106 = [
     (15461, 8, [(ACTIONS 3, 1, [anon_sym_SLASH_SLASH]), (ACTIONS 5, 1, [anon_sym_SLASH_STAR]),
       (ACTIONS 7, 1, [anon_sym_SLASH_SLASH_SLASH]), (ACTIONS 9, 1, [sym__block_comment]),
       (ACTIONS 11, 1, [sym__documentation_block_comment]), (STATE 649, 2, [sym_comment,
       sym_documentation_comment]), (ACTIONS 1645, 21, [anon_sym_EQ, anon_sym_QMARK_QMARK,
       anon_sym_QMARK, anon_sym_LT, anon_sym_GT, anon_sym_PIPE, anon_sym_CARET, anon_sym_AMP,
       anon_sym_LT_LT, anon_sym_GT_GT, anon_sym_GT_GT_GT, sym__additive_operator, anon_sym_STAR,
       anon_sym_SLASH, anon_sym_PERCENT, anon_sym_TILDE_SLASH, anon_sym_BANG, anon_sym_as,
       anon_sym_DOT, anon_sym_QMARK_DOT, anon_sym_async]), (ACTIONS 1643, 29, [anon_sym_LBRACE,
       anon_sym_LBRACK, anon_sym_COMMA, anon_sym_LPAREN, anon_sym_PLUS_EQ, anon_sym_DASH_EQ,
       anon_sym_STAR_EQ, anon_sym_SLASH_EQ, anon_sym_PERCENT_EQ, anon_sym_TILDE_SLASH_EQ,
       anon_sym_LT_LT_EQ, anon_sym_GT_GT_EQ, anon_sym_GT_GT_GT_EQ, anon_sym_AMP_EQ,
       anon_sym_CARET_EQ, anon_sym_PIPE_EQ, anon_sym_QMARK_QMARK_EQ, sym_equality_operator,
       anon_sym_LT_EQ, anon_sym_GT_EQ, anon_sym_is, anon_sym_DOT_DOT, anon_sym_QMARK_DOT_DOT,
       anon_sym_SEMI, anon_sym_EQ_GT, anon_sym_async_STAR, anon_sym_sync_STAR, anon_sym_AMP_AMP,
       anon_sym_PIPE_PIPE])]),
     (15535, 8, [(ACTIONS 3, 1, [anon_sym_SLASH_SLASH]), (ACTIONS 5, 1, [anon_sym_SLASH_STAR]),
       (ACTIONS 7, 1, [anon_sym_SLASH_SLASH_SLASH]), (ACTIONS 9, 1, [sym__block_comment]),
       (ACTIONS 11, 1, [sym__documentation_block_comment]), (STATE 650, 2, [sym_comment,
       sym_documentation_comment]), (ACTIONS 1717, 21, [anon_sym_EQ, anon_sym_QMARK_QMARK,
       anon_sym_QMARK, anon_sym_LT, anon_sym_GT, anon_sym_PIPE, anon_sym_CARET, anon_sym_AMP,
       anon_sym_LT_LT, anon_sym_GT_GT, anon_sym_GT_GT_GT, sym__additive_operator, anon_sym_STAR,
       anon_sym_SLASH, anon_sym_PERCENT, anon_sym_TILDE_SLASH, anon_sym_BANG, anon_sym_as,
       anon_sym_DOT, anon_sym_QMARK_DOT, anon_sym_async]), (ACTIONS 1715, 29, [anon_sym_LBRACE,
       anon_sym_LBRACK, anon_sym_COMMA, anon_sym_LPAREN, anon_sym_PLUS_EQ, anon_sym_DASH_EQ,
       anon_sym_STAR_EQ, anon_sym_SLASH_EQ, anon_sym_PERCENT_EQ, anon_sym_TILDE_SLASH_EQ,
       anon_sym_LT_LT_EQ, anon_sym_GT_GT_EQ, anon_sym_GT_GT_GT_EQ, anon_sym_AMP_EQ,
       anon_sym_CARET_EQ, anon_sym_PIPE_EQ, anon_sym_QMARK_QMARK_EQ, sym_equality_operator,
       anon_sym_LT_EQ, anon_sym_GT_EQ, anon_sym_is, anon_sym_DOT_DOT, anon_sym_QMARK_DOT_DOT,
       anon_sym_SEMI, anon_sym_EQ_GT, anon_sym_async_STAR, anon_sym_sync_STAR, anon_sym_AMP_AMP,
       anon_sym_PIPE_PIPE])])]"

lemma small_run_106: "small_run 649 15461 ts_small_parse_table_106 651 15609"
  by (simp add: small_simps ts_small_parse_table_106_def)

definition ts_small_parse_table_107 :: "small_group list" where
  "ts_small_parse_table_107 = [
     (15609, 8, [(ACTIONS 3, 1, [anon_sym_SLASH_SLASH]), (ACTIONS 5, 1, [anon_sym_SLASH_STAR]),
       (ACTIONS 7, 1, [anon_sym_SLASH_SLASH_SLASH]), (ACTIONS 9, 1, [sym__block_comment]),
       (ACTIONS 11, 1, [sym__documentation_block_comment]), (STATE 651, 2, [sym_comment,
       sym_documentation_comment]), (ACTIONS 1697, 21, [anon_sym_EQ, anon_sym_QMARK_QMARK,
       anon_sym_QMARK, anon_sym_LT, anon_sym_GT, anon_sym_PIPE, anon_sym_CARET, anon_sym_AMP,
       anon_sym_LT_LT, anon_sym_GT_GT, anon_sym_GT_GT_GT, sym__additive_operator, anon_sym_STAR,
       anon_sym_SLASH, anon_sym_PERCENT, anon_sym_TILDE_SLASH, anon_sym_BANG, anon_sym_as,
       anon_sym_DOT, anon_sym_QMARK_DOT, anon_sym_async]), (ACTIONS 1695, 29, [anon_sym_LBRACE,
       anon_sym_LBRACK, anon_sym_COMMA, anon_sym_LPAREN, anon_sym_PLUS_EQ, anon_sym_DASH_EQ,
       anon_sym_STAR_EQ, anon_sym_SLASH_EQ, anon_sym_PERCENT_EQ, anon_sym_TILDE_SLASH_EQ,
       anon_sym_LT_LT_EQ, anon_sym_GT_GT_EQ, anon_sym_GT_GT_GT_EQ, anon_sym_AMP_EQ,
       anon_sym_CARET_EQ, anon_sym_PIPE_EQ, anon_sym_QMARK_QMARK_EQ, sym_equality_operator,
       anon_sym_LT_EQ, anon_sym_GT_EQ, anon_sym_is, anon_sym_DOT_DOT, anon_sym_QMARK_DOT_DOT,
       anon_sym_SEMI, anon_sym_EQ_GT, anon_sym_async_STAR, anon_sym_sync_STAR, anon_sym_AMP_AMP,
       anon_sym_PIPE_PIPE])]),
     (15683, 8, [(ACTIONS 3, 1, [anon_sym_SLASH_SLASH]), (ACTIONS 5, 1, [anon_sym_SLASH_STAR]),
       (ACTIONS 7, 1, [anon_sym_SLASH_SLASH_SLASH]), (ACTIONS 9, 1, [sym__block_comment]),
       (ACTIONS 11, 1, [sym__documentation_block_comment]), (STATE 652, 2, [sym_comment,
       sym_documentation_comment]), (ACTIONS 1721, 21, [anon_sym_EQ, anon_sym_QMARK_QMARK,
       anon_sym_QMARK, anon_sym_LT, anon_sym_GT, anon_sym_PIPE, anon_sym_CARET, anon_sym_AMP,
       anon_sym_LT_LT, anon_sym_GT_GT, anon_sym_GT_GT_GT, sym__additive_operator, anon_sym_STAR,
       anon_sym_SLASH, anon_sym_PERCENT, anon_sym_TILDE_SLASH, anon_sym_BANG, anon_sym_as,
       anon_sym_DOT, anon_sym_QMARK_DOT, anon_sym_async]), (ACTIONS 1719, 29, [anon_sym_LBRACE,
       anon_sym_LBRACK, anon_sym_COMMA, anon_sym_LPAREN, anon_sym_PLUS_EQ, anon_sym_DASH_EQ,
       anon_sym_STAR_EQ, anon_sym_SLASH_EQ, anon_sym_PERCENT_EQ, anon_sym_TILDE_SLASH_EQ,
       anon_sym_LT_LT_EQ, anon_sym_GT_GT_EQ, anon_sym_GT_GT_GT_EQ, anon_sym_AMP_EQ,
       anon_sym_CARET_EQ, anon_sym_PIPE_EQ, anon_sym_QMARK_QMARK_EQ, sym_equality_operator,
       anon_sym_LT_EQ, anon_sym_GT_EQ, anon_sym_is, anon_sym_DOT_DOT, anon_sym_QMARK_DOT_DOT,
       anon_sym_SEMI, anon_sym_EQ_GT, anon_sym_async_STAR, anon_sym_sync_STAR, anon_sym_AMP_AMP,
       anon_sym_PIPE_PIPE])])]"

lemma small_run_107: "small_run 651 15609 ts_small_parse_table_107 653 15757"
  by (simp add: small_simps ts_small_parse_table_107_def)

definition ts_small_parse_table_108 :: "small_group list" where
  "ts_small_parse_table_108 = [
     (15757, 8, [(ACTIONS 3, 1, [anon_sym_SLASH_SLASH]), (ACTIONS 5, 1, [anon_sym_SLASH_STAR]),
       (ACTIONS 7, 1, [anon_sym_SLASH_SLASH_SLASH]), (ACTIONS 9, 1, [sym__block_comment]),
       (ACTIONS 11, 1, [sym__documentation_block_comment]), (STATE 653, 2, [sym_comment,
       sym_documentation_comment]), (ACTIONS 1729, 21, [anon_sym_EQ, anon_sym_QMARK_QMARK,
       anon_sym_QMARK, anon_sym_LT, anon_sym_GT, anon_sym_PIPE, anon_sym_CARET, anon_sym_AMP,
       anon_sym_LT_LT, anon_sym_GT_GT, anon_sym_GT_GT_GT, sym__additive_operator, anon_sym_STAR,
       anon_sym_SLASH, anon_sym_PERCENT, anon_sym_TILDE_SLASH, anon_sym_BANG, anon_sym_as,
       anon_sym_DOT, anon_sym_QMARK_DOT, anon_sym_async]), (ACTIONS 1727, 29, [anon_sym_LBRACE,
       anon_sym_LBRACK, anon_sym_COMMA, anon_sym_LPAREN, anon_sym_PLUS_EQ, anon_sym_DASH_EQ,
       anon_sym_STAR_EQ, anon_sym_SLASH_EQ, anon_sym_PERCENT_EQ, anon_sym_TILDE_SLASH_EQ,
       anon_sym_LT_LT_EQ, anon_sym_GT_GT_EQ, anon_sym_GT_GT_GT_EQ, anon_sym_AMP_EQ,
       anon_sym_CARET_EQ, anon_sym_PIPE_EQ, anon_sym_QMARK_QMARK_EQ, sym_equality_operator,
       anon_sym_LT_EQ, anon_sym_GT_EQ, anon_sym_is, anon_sym_DOT_DOT, anon_sym_QMARK_DOT_DOT,
       anon_sym_SEMI, anon_sym_EQ_GT, anon_sym_async_STAR, anon_sym_sync_STAR, anon_sym_AMP_AMP,
       anon_sym_PIPE_PIPE])]),
     (15831, 24, [(ACTIONS 3, 1, [anon_sym_SLASH_SLASH]), (ACTIONS 5, 1,
       [anon_sym_SLASH_STAR]), (ACTIONS 7, 1, [anon_sym_SLASH_SLASH_SLASH]), (ACTIONS 9, 1,
       [sym__block_comment]), (ACTIONS 11, 1, [sym__documentation_block_comment]), (ACTIONS 2001,
       1, [anon_sym_LPAREN]), (ACTIONS 2005, 1, [anon_sym_LT]), (ACTIONS 2009, 1,
       [anon_sym_BANG]), (ACTIONS 2042, 1, [anon_sym_LBRACK]), (ACTIONS 2044, 1,
       [anon_sym_QMARK]), (ACTIONS 2046, 1, [anon_sym_DOT]), (ACTIONS 2048, 1,
       [anon_sym_QMARK_DOT]), (STATE 669, 1, [aux_sym__assignable_selector_part_repeat1]), (STATE
       836, 1, [sym_index_selector]), (STATE 859, 1, [sym__assignable_selector]), (STATE 869, 1,
       [sym_type_arguments]), (STATE 964, 1, [sym_selector]), (STATE 992, 1, [sym_arguments]),
       (STATE 1990, 1, [sym__assignable_selector_part]), (STATE 654, 2, [sym_comment,
       sym_documentation_comment]), (STATE 858, 2, [sym_unconditional_assignable_selector,
       sym_conditional_assignable_selector]), (STATE 995, 2, [sym__exclamation_operator,
       sym_argument_part]), (ACTIONS 2007, 5, [anon_sym_GT, anon_sym_PIPE, anon_sym_AMP,
       anon_sym_GT_GT, anon_sym_SLASH]), (ACTIONS 1997, 27, [anon_sym_RBRACE, anon_sym_COMMA,
       anon_sym_RBRACK, anon_sym_COLON, anon_sym_RPAREN, anon_sym_QMARK_QMARK,
       sym_equality_operator, anon_sym_LT_EQ, anon_sym_GT_EQ, anon_sym_CARET, anon_sym_LT_LT,
       anon_sym_GT_GT_GT, sym__additive_operator, anon_sym_STAR, anon_sym_PERCENT,
       anon_sym_TILDE_SLASH, anon_sym_is, anon_sym_as, anon_sym_DOT_DOT, anon_sym_QMARK_DOT_DOT,
       anon_sym_SEMI, anon_sym_EQ_GT, anon_sym_when, anon_sym_case, anon_sym_else,
       anon_sym_AMP_AMP, anon_sym_PIPE_PIPE])])]"

lemma small_run_108: "small_run 653 15757 ts_small_parse_table_108 655 15937"
  by (simp add: small_simps ts_small_parse_table_108_def)

definition ts_small_parse_table_109 :: "small_group list" where
  "ts_small_parse_table_109 = [
     (15937, 16, [(ACTIONS 3, 1, [anon_sym_SLASH_SLASH]), (ACTIONS 5, 1,
       [anon_sym_SLASH_STAR]), (ACTIONS 7, 1, [anon_sym_SLASH_SLASH_SLASH]), (ACTIONS 9, 1,
       [sym__block_comment]), (ACTIONS 11, 1, [sym__documentation_block_comment]), (ACTIONS 1328,
       1, [anon_sym_EQ]), (ACTIONS 1341, 1, [anon_sym_DOT]), (ACTIONS 1516, 1,
       [anon_sym_LPAREN]), (ACTIONS 2050, 1, [anon_sym_in]), (STATE 1612, 1,
       [sym__type_dot_identifier]), (ACTIONS 1320, 2, [anon_sym_Function, sym_identifier]),
       (ACTIONS 1334, 2, [anon_sym_QMARK, anon_sym_LT]), (STATE 655, 2, [sym_comment,
       sym_documentation_comment]), (ACTIONS 1322, 10, [anon_sym_LBRACK, anon_sym_COMMA,
       sym_equality_operator, anon_sym_LT_EQ, anon_sym_GT_EQ, anon_sym_DOT_DOT,
       anon_sym_QMARK_DOT_DOT, anon_sym_SEMI, anon_sym_AMP_AMP, anon_sym_PIPE_PIPE]), (ACTIONS
       1330, 14, [anon_sym_PLUS_EQ, anon_sym_DASH_EQ, anon_sym_STAR_EQ, anon_sym_SLASH_EQ,
       anon_sym_PERCENT_EQ, anon_sym_TILDE_SLASH_EQ, anon_sym_LT_LT_EQ, anon_sym_GT_GT_EQ,
       anon_sym_GT_GT_GT_EQ, anon_sym_AMP_EQ, anon_sym_CARET_EQ, anon_sym_PIPE_EQ,
       anon_sym_QMARK_QMARK_EQ, sym_increment_operator]), (ACTIONS 1332, 17,
       [anon_sym_QMARK_QMARK, anon_sym_GT, anon_sym_PIPE, anon_sym_CARET, anon_sym_AMP,
       anon_sym_LT_LT, anon_sym_GT_GT, anon_sym_GT_GT_GT, sym__additive_operator, anon_sym_STAR,
       anon_sym_SLASH, anon_sym_PERCENT, anon_sym_TILDE_SLASH, anon_sym_BANG, anon_sym_is,
       anon_sym_as, anon_sym_QMARK_DOT])]),
     (16027, 15, [(ACTIONS 3, 1, [anon_sym_SLASH_SLASH]), (ACTIONS 5, 1,
       [anon_sym_SLASH_STAR]), (ACTIONS 7, 1, [anon_sym_SLASH_SLASH_SLASH]), (ACTIONS 9, 1,
       [sym__block_comment]), (ACTIONS 11, 1, [sym__documentation_block_comment]), (ACTIONS 1936,
       1, [anon_sym_LPAREN]), (ACTIONS 1942, 1, [anon_sym_LT]), (STATE 2016, 1,
       [sym__strict_formal_parameter_list]), (STATE 2020, 1, [sym_formal_parameter_list]), (STATE
       2447, 1, [sym__formal_parameter_part]), (STATE 2932, 1, [sym_type_parameters]), (ACTIONS
       1933, 2, [anon_sym_COMMA, anon_sym_RPAREN]), (STATE 656, 2, [sym_comment,
       sym_documentation_comment]), (ACTIONS 1663, 18, [anon_sym_EQ, anon_sym_QMARK_QMARK,
       anon_sym_QMARK, anon_sym_GT, anon_sym_PIPE, anon_sym_CARET, anon_sym_AMP, anon_sym_LT_LT,
       anon_sym_GT_GT, anon_sym_GT_GT_GT, sym__additive_operator, anon_sym_STAR, anon_sym_SLASH,
       anon_sym_PERCENT, anon_sym_TILDE_SLASH, anon_sym_BANG, anon_sym_DOT, anon_sym_QMARK_DOT]),
       (ACTIONS 1661, 24, [anon_sym_LBRACK, anon_sym_PLUS_EQ, anon_sym_DASH_EQ, anon_sym_STAR_EQ,
       anon_sym_SLASH_EQ, anon_sym_PERCENT_EQ, anon_sym_TILDE_SLASH_EQ, anon_sym_LT_LT_EQ,
       anon_sym_GT_GT_EQ, anon_sym_GT_GT_GT_EQ, anon_sym_AMP_EQ, anon_sym_CARET_EQ,
       anon_sym_PIPE_EQ, anon_sym_QMARK_QMARK_EQ, sym_equality_operator, anon_sym_LT_EQ,
       anon_sym_GT_EQ, sym_increment_operator, anon_sym_is, anon_sym_as, anon_sym_DOT_DOT,
       anon_sym_QMARK_DOT_DOT, anon_sym_AMP_AMP, anon_sym_PIPE_PIPE])])]"

lemma small_run_109: "small_run 655 15937 ts_small_parse_table_109 657 16115"
  by (simp add: small_simps ts_small_parse_table_109_def)

definition ts_small_parse_table_110 :: "small_group list" where
  "ts_small_parse_table_110 = [
     (16115, 8, [(ACTIONS 3, 1, [anon_sym_SLASH_SLASH]), (ACTIONS 5, 1, [anon_sym_SLASH_STAR]),
       (ACTIONS 7, 1, [anon_sym_SLASH_SLASH_SLASH]), (ACTIONS 9, 1, [sym__block_comment]),
       (ACTIONS 11, 1, [sym__documentation_block_comment]), (STATE 657, 2, [sym_comment,
       sym_documentation_comment]), (ACTIONS 1881, 21, [anon_sym_EQ, anon_sym_QMARK_QMARK,
       anon_sym_QMARK, anon_sym_LT, anon_sym_GT, anon_sym_PIPE, anon_sym_CARET, anon_sym_AMP,
       anon_sym_LT_LT, anon_sym_GT_GT, anon_sym_GT_GT_GT, sym__additive_operator, anon_sym_STAR,
       anon_sym_SLASH, anon_sym_PERCENT, anon_sym_TILDE_SLASH, anon_sym_BANG, anon_sym_as,
       anon_sym_DOT, anon_sym_QMARK_DOT, anon_sym_async]), (ACTIONS 1879, 29, [anon_sym_LBRACE,
       anon_sym_LBRACK, anon_sym_COMMA, anon_sym_LPAREN, anon_sym_PLUS_EQ, anon_sym_DASH_EQ,
       anon_sym_STAR_EQ, anon_sym_SLASH_EQ, anon_sym_PERCENT_EQ, anon_sym_TILDE_SLASH_EQ,
       anon_sym_LT_LT_EQ, anon_sym_GT_GT_EQ, anon_sym_GT_GT_GT_EQ, anon_sym_AMP_EQ,
       anon_sym_CARET_EQ, anon_sym_PIPE_EQ, anon_sym_QMARK_QMARK_EQ, sym_equality_operator,
       anon_sym_LT_EQ, anon_sym_GT_EQ, anon_sym_is, anon_sym_DOT_DOT, anon_sym_QMARK_DOT_DOT,
       anon_sym_SEMI, anon_sym_EQ_GT, anon_sym_async_STAR, anon_sym_sync_STAR, anon_sym_AMP_AMP,
       anon_sym_PIPE_PIPE])]),
     (16189, 15, [(ACTIONS 3, 1, [anon_sym_SLASH_SLASH]), (ACTIONS 5, 1,
       [anon_sym_SLASH_STAR]), (ACTIONS 7, 1, [anon_sym_SLASH_SLASH_SLASH]), (ACTIONS 9, 1,
       [sym__block_comment]), (ACTIONS 11, 1, [sym__documentation_block_comment]), (ACTIONS 1328,
       1, [anon_sym_EQ]), (ACTIONS 1341, 1, [anon_sym_DOT]), (ACTIONS 1516, 1,
       [anon_sym_LPAREN]), (STATE 1612, 1, [sym__type_dot_identifier]), (ACTIONS 1320, 2,
       [anon_sym_Function, sym_identifier]), (ACTIONS 1334, 2, [anon_sym_QMARK, anon_sym_LT]),
       (STATE 658, 2, [sym_comment, sym_documentation_comment]), (ACTIONS 1322, 11,
       [anon_sym_RBRACE, anon_sym_LBRACK, anon_sym_COMMA, anon_sym_COLON, sym_equality_operator,
       anon_sym_LT_EQ, anon_sym_GT_EQ, anon_sym_DOT_DOT, anon_sym_QMARK_DOT_DOT,
       anon_sym_AMP_AMP, anon_sym_PIPE_PIPE]), (ACTIONS 1330, 14, [anon_sym_PLUS_EQ,
       anon_sym_DASH_EQ, anon_sym_STAR_EQ, anon_sym_SLASH_EQ, anon_sym_PERCENT_EQ,
       anon_sym_TILDE_SLASH_EQ, anon_sym_LT_LT_EQ, anon_sym_GT_GT_EQ, anon_sym_GT_GT_GT_EQ,
       anon_sym_AMP_EQ, anon_sym_CARET_EQ, anon_sym_PIPE_EQ, anon_sym_QMARK_QMARK_EQ,
       sym_increment_operator]), (ACTIONS 1332, 17, [anon_sym_QMARK_QMARK, anon_sym_GT,
       anon_sym_PIPE, anon_sym_CARET, anon_sym_AMP, anon_sym_LT_LT, anon_sym_GT_GT,
       anon_sym_GT_GT_GT, sym__additive_operator, anon_sym_STAR, anon_sym_SLASH,
       anon_sym_PERCENT, anon_sym_TILDE_SLASH, anon_sym_BANG, anon_sym_is, anon_sym_as,
       anon_sym_QMARK_DOT])])]"

lemma small_run_110: "small_run 657 16115 ts_small_parse_table_110 659 16277"
  by (simp add: small_simps ts_small_parse_table_110_def)

definition ts_small_parse_table_111 :: "small_group list" where
  "ts_small_parse_table_111 = [
     (16277, 24, [(ACTIONS 3, 1, [anon_sym_SLASH_SLASH]), (ACTIONS 5, 1,
       [anon_sym_SLASH_STAR]), (ACTIONS 7, 1, [anon_sym_SLASH_SLASH_SLASH]), (ACTIONS 9, 1,
       [sym__block_comment]), (ACTIONS 11, 1, [sym__documentation_block_comment]), (ACTIONS 2022,
       1, [anon_sym_LPAREN]), (ACTIONS 2028, 1, [anon_sym_LT]), (ACTIONS 2033, 1,
       [anon_sym_BANG]), (ACTIONS 2052, 1, [anon_sym_LBRACK]), (ACTIONS 2055, 1,
       [anon_sym_QMARK]), (ACTIONS 2058, 1, [anon_sym_DOT]), (ACTIONS 2061, 1,
       [anon_sym_QMARK_DOT]), (STATE 664, 1, [aux_sym__assignable_selector_part_repeat1]), (STATE
       836, 1, [sym_index_selector]), (STATE 859, 1, [sym__assignable_selector]), (STATE 869, 1,
       [sym_type_arguments]), (STATE 964, 1, [sym_selector]), (STATE 992, 1, [sym_arguments]),
       (STATE 1990, 1, [sym__assignable_selector_part]), (STATE 659, 2, [sym_comment,
       sym_documentation_comment]), (STATE 858, 2, [sym_unconditional_assignable_selector,
       sym_conditional_assignable_selector]), (STATE 995, 2, [sym__exclamation_operator,
       sym_argument_part]), (ACTIONS 2031, 5, [anon_sym_GT, anon_sym_PIPE, anon_sym_AMP,
       anon_sym_GT_GT, anon_sym_SLASH]), (ACTIONS 2017, 27, [anon_sym_RBRACE, anon_sym_COMMA,
       anon_sym_RBRACK, anon_sym_COLON, anon_sym_RPAREN, anon_sym_QMARK_QMARK,
       sym_equality_operator, anon_sym_LT_EQ, anon_sym_GT_EQ, anon_sym_CARET, anon_sym_LT_LT,
       anon_sym_GT_GT_GT, sym__additive_operator, anon_sym_STAR, anon_sym_PERCENT,
       anon_sym_TILDE_SLASH, anon_sym_is, anon_sym_as, anon_sym_DOT_DOT, anon_sym_QMARK_DOT_DOT,
       anon_sym_SEMI, anon_sym_EQ_GT, anon_sym_when, anon_sym_case, anon_sym_else,
       anon_sym_AMP_AMP, anon_sym_PIPE_PIPE])])]"

lemma small_run_111: "small_run 659 16277 ts_small_parse_table_111 660 16383"
  by (simp add: small_simps ts_small_parse_table_111_def)

definition ts_small_parse_table_112 :: "small_group list" where
  "ts_small_parse_table_112 = [
     (16383, 43, [(ACTIONS 3, 1, [anon_sym_SLASH_SLASH]), (ACTIONS 5, 1,
       [anon_sym_SLASH_STAR]), (ACTIONS 7, 1, [anon_sym_SLASH_SLASH_SLASH]), (ACTIONS 9, 1,
       [sym__block_comment]), (ACTIONS 11, 1, [sym__documentation_block_comment]), (ACTIONS 1273,
       1, [anon_sym_GT_GT]), (ACTIONS 1275, 1, [sym__additive_operator]), (ACTIONS 1279, 1,
       [anon_sym_is]), (ACTIONS 1281, 1, [anon_sym_as]), (ACTIONS 1286, 1, [anon_sym_AMP_AMP]),
       (ACTIONS 1288, 1, [anon_sym_PIPE_PIPE]), (ACTIONS 2064, 1, [anon_sym_QMARK_QMARK]),
       (ACTIONS 2066, 1, [anon_sym_QMARK]), (ACTIONS 2068, 1, [sym_equality_operator]), (ACTIONS
       2070, 1, [anon_sym_PIPE]), (ACTIONS 2072, 1, [anon_sym_CARET]), (ACTIONS 2074, 1,
       [anon_sym_AMP]), (STATE 320, 1, [sym_relational_operator]), (STATE 327, 1,
       [sym_shift_operator]), (STATE 328, 1, [sym_additive_operator]), (STATE 330, 1,
       [sym_logical_and_operator]), (STATE 332, 1, [sym_logical_or_operator]), (STATE 914, 1,
       [sym_cascade_section]), (STATE 1334, 1, [aux_sym_shift_expression_repeat1]), (STATE 1386,
       1, [aux_sym_additive_expression_repeat1]), (STATE 1392, 1,
       [aux_sym_logical_and_expression_repeat1]), (STATE 1393, 1,
       [aux_sym_logical_or_expression_repeat1]), (STATE 1397, 1, [sym__shift_operator]), (STATE
       1398, 1, [aux_sym__if_null_expression]), (STATE 1405, 1,
       [aux_sym_bitwise_or_expression_repeat1]), (STATE 1408, 1,
       [aux_sym_bitwise_xor_expression_repeat1]), (STATE 1409, 1,
       [aux_sym_bitwise_and_expression_repeat1]), (STATE 1453, 1, [sym_type_cast]), (STATE 1469,
       1, [sym_type_test]), (STATE 2095, 1, [aux_sym__expression_repeat1]), (STATE 2096, 1,
       [sym_as_operator]), (STATE 2097, 1, [sym_is_operator]), (ACTIONS 400, 2, [anon_sym_LT,
       anon_sym_GT]), (ACTIONS 402, 2, [anon_sym_LT_EQ, anon_sym_GT_EQ]), (ACTIONS 1271, 2,
       [anon_sym_LT_LT, anon_sym_GT_GT_GT]), (ACTIONS 2076, 2, [anon_sym_DOT_DOT,
       anon_sym_QMARK_DOT_DOT]), (STATE 660, 2, [sym_comment, sym_documentation_comment]),
       (ACTIONS 1257, 9, [anon_sym_RBRACE, anon_sym_COMMA, anon_sym_RBRACK, anon_sym_COLON,
       anon_sym_RPAREN, anon_sym_SEMI, anon_sym_EQ_GT, anon_sym_case, anon_sym_else])])]"

lemma small_run_112: "small_run 660 16383 ts_small_parse_table_112 661 16526"
  by (simp add: small_simps ts_small_parse_table_112_def)

definition ts_small_parse_table_113 :: "small_group list" where
  "ts_small_parse_table_113 = [
     (16526, 8, [(ACTIONS 3, 1, [anon_sym_SLASH_SLASH]), (ACTIONS 5, 1, [anon_sym_SLASH_STAR]),
       (ACTIONS 7, 1, [anon_sym_SLASH_SLASH_SLASH]), (ACTIONS 9, 1, [sym__block_comment]),
       (ACTIONS 11, 1, [sym__documentation_block_comment]), (STATE 661, 2, [sym_comment,
       sym_documentation_comment]), (ACTIONS 1670, 17, [anon_sym_EQ, anon_sym_QMARK_QMARK,
       anon_sym_QMARK, anon_sym_LT, anon_sym_GT, anon_sym_PIPE, anon_sym_CARET, anon_sym_AMP,
       anon_sym_LT_LT, anon_sym_GT_GT, anon_sym_GT_GT_GT, sym__additive_operator, anon_sym_STAR,
       anon_sym_SLASH, anon_sym_PERCENT, anon_sym_TILDE_SLASH, anon_sym_BANG]), (ACTIONS 1668,
       32, [anon_sym_RBRACE, anon_sym_LBRACK, anon_sym_COMMA, anon_sym_RBRACK, anon_sym_COLON,
       anon_sym_LPAREN, anon_sym_RPAREN, anon_sym_PLUS_EQ, anon_sym_DASH_EQ, anon_sym_STAR_EQ,
       anon_sym_SLASH_EQ, anon_sym_PERCENT_EQ, anon_sym_TILDE_SLASH_EQ, anon_sym_LT_LT_EQ,
       anon_sym_GT_GT_EQ, anon_sym_GT_GT_GT_EQ, anon_sym_AMP_EQ, anon_sym_CARET_EQ,
       anon_sym_PIPE_EQ, anon_sym_QMARK_QMARK_EQ, sym_equality_operator, anon_sym_LT_EQ,
       anon_sym_GT_EQ, sym_increment_operator, anon_sym_is, anon_sym_as, anon_sym_DOT,
       anon_sym_QMARK_DOT, anon_sym_EQ_GT, anon_sym_when, anon_sym_AMP_AMP,
       anon_sym_PIPE_PIPE])]),
     (16599, 10, [(ACTIONS 3, 1, [anon_sym_SLASH_SLASH]), (ACTIONS 5, 1,
       [anon_sym_SLASH_STAR]), (ACTIONS 7, 1, [anon_sym_SLASH_SLASH_SLASH]), (ACTIONS 9, 1,
       [sym__block_comment]), (ACTIONS 11, 1, [sym__documentation_block_comment]), (ACTIONS 1674,
       1, [anon_sym_EQ]), (STATE 662, 2, [sym_comment, sym_documentation_comment]), (ACTIONS
       1676, 14, [anon_sym_PLUS_EQ, anon_sym_DASH_EQ, anon_sym_STAR_EQ, anon_sym_SLASH_EQ,
       anon_sym_PERCENT_EQ, anon_sym_TILDE_SLASH_EQ, anon_sym_LT_LT_EQ, anon_sym_GT_GT_EQ,
       anon_sym_GT_GT_GT_EQ, anon_sym_AMP_EQ, anon_sym_CARET_EQ, anon_sym_PIPE_EQ,
       anon_sym_QMARK_QMARK_EQ, sym_increment_operator]), (ACTIONS 1678, 16,
       [anon_sym_QMARK_QMARK, anon_sym_QMARK, anon_sym_LT, anon_sym_GT, anon_sym_PIPE,
       anon_sym_CARET, anon_sym_AMP, anon_sym_LT_LT, anon_sym_GT_GT, anon_sym_GT_GT_GT,
       sym__additive_operator, anon_sym_STAR, anon_sym_SLASH, anon_sym_PERCENT,
       anon_sym_TILDE_SLASH, anon_sym_BANG]), (ACTIONS 1672, 18, [anon_sym_RBRACE,
       anon_sym_LBRACK, anon_sym_COMMA, anon_sym_RBRACK, anon_sym_COLON, anon_sym_LPAREN,
       anon_sym_RPAREN, sym_equality_operator, anon_sym_LT_EQ, anon_sym_GT_EQ, anon_sym_is,
       anon_sym_as, anon_sym_DOT, anon_sym_QMARK_DOT, anon_sym_EQ_GT, anon_sym_when,
       anon_sym_AMP_AMP, anon_sym_PIPE_PIPE])])]"

lemma small_run_113: "small_run 661 16526 ts_small_parse_table_113 663 16676"
  by (simp add: small_simps ts_small_parse_table_113_def)

definition ts_small_parse_table_114 :: "small_group list" where
  "ts_small_parse_table_114 = [
     (16676, 21, [(ACTIONS 3, 1, [anon_sym_SLASH_SLASH]), (ACTIONS 5, 1,
       [anon_sym_SLASH_STAR]), (ACTIONS 7, 1, [anon_sym_SLASH_SLASH_SLASH]), (ACTIONS 9, 1,
       [sym__block_comment]), (ACTIONS 11, 1, [sym__documentation_block_comment]), (ACTIONS 2080,
       1, [anon_sym_LBRACK]), (ACTIONS 2083, 1, [anon_sym_LPAREN]), (ACTIONS 2086, 1,
       [anon_sym_QMARK]), (ACTIONS 2089, 1, [anon_sym_LT]), (ACTIONS 2094, 1, [anon_sym_BANG]),
       (ACTIONS 2097, 1, [anon_sym_DOT]), (ACTIONS 2100, 1, [anon_sym_QMARK_DOT]), (STATE 869, 1,
       [sym_type_arguments]), (STATE 906, 1, [sym_index_selector]), (STATE 964, 1,
       [sym_selector]), (STATE 992, 1, [sym_arguments]), (STATE 907, 2,
       [sym_unconditional_assignable_selector, sym_conditional_assignable_selector]), (STATE 663,
       3, [sym_comment, sym_documentation_comment, aux_sym__assignable_selector_part_repeat1]),
       (STATE 995, 3, [sym__exclamation_operator, sym_argument_part, sym__assignable_selector]),
       (ACTIONS 2092, 5, [anon_sym_GT, anon_sym_PIPE, anon_sym_AMP, anon_sym_GT_GT,
       anon_sym_SLASH]), (ACTIONS 2078, 27, [anon_sym_RBRACE, anon_sym_COMMA, anon_sym_RBRACK,
       anon_sym_COLON, anon_sym_RPAREN, anon_sym_QMARK_QMARK, sym_equality_operator,
       anon_sym_LT_EQ, anon_sym_GT_EQ, anon_sym_CARET, anon_sym_LT_LT, anon_sym_GT_GT_GT,
       sym__additive_operator, anon_sym_STAR, anon_sym_PERCENT, anon_sym_TILDE_SLASH,
       anon_sym_is, anon_sym_as, anon_sym_DOT_DOT, anon_sym_QMARK_DOT_DOT, anon_sym_SEMI,
       anon_sym_EQ_GT, anon_sym_when, anon_sym_case, anon_sym_else, anon_sym_AMP_AMP,
       anon_sym_PIPE_PIPE])])]"

lemma small_run_114: "small_run 663 16676 ts_small_parse_table_114 664 16775"
  by (simp add: small_simps ts_small_parse_table_114_def)

definition ts_small_parse_table_115 :: "small_group list" where
  "ts_small_parse_table_115 = [
     (16775, 23, [(ACTIONS 3, 1, [anon_sym_SLASH_SLASH]), (ACTIONS 5, 1,
       [anon_sym_SLASH_STAR]), (ACTIONS 7, 1, [anon_sym_SLASH_SLASH_SLASH]), (ACTIONS 9, 1,
       [sym__block_comment]), (ACTIONS 11, 1, [sym__documentation_block_comment]), (ACTIONS 2105,
       1, [anon_sym_LBRACK]), (ACTIONS 2108, 1, [anon_sym_LPAREN]), (ACTIONS 2111, 1,
       [anon_sym_QMARK]), (ACTIONS 2114, 1, [anon_sym_LT]), (ACTIONS 2119, 1, [anon_sym_BANG]),
       (ACTIONS 2122, 1, [anon_sym_DOT]), (ACTIONS 2125, 1, [anon_sym_QMARK_DOT]), (STATE 663, 1,
       [aux_sym__assignable_selector_part_repeat1]), (STATE 836, 1, [sym_index_selector]), (STATE
       869, 1, [sym_type_arguments]), (STATE 873, 1, [sym__assignable_selector]), (STATE 964, 1,
       [sym_selector]), (STATE 992, 1, [sym_arguments]), (STATE 664, 2, [sym_comment,
       sym_documentation_comment]), (STATE 858, 2, [sym_unconditional_assignable_selector,
       sym_conditional_assignable_selector]), (STATE 995, 2, [sym__exclamation_operator,
       sym_argument_part]), (ACTIONS 2117, 5, [anon_sym_GT, anon_sym_PIPE, anon_sym_AMP,
       anon_sym_GT_GT, anon_sym_SLASH]), (ACTIONS 2103, 27, [anon_sym_RBRACE, anon_sym_COMMA,
       anon_sym_RBRACK, anon_sym_COLON, anon_sym_RPAREN, anon_sym_QMARK_QMARK,
       sym_equality_operator, anon_sym_LT_EQ, anon_sym_GT_EQ, anon_sym_CARET, anon_sym_LT_LT,
       anon_sym_GT_GT_GT, sym__additive_operator, anon_sym_STAR, anon_sym_PERCENT,
       anon_sym_TILDE_SLASH, anon_sym_is, anon_sym_as, anon_sym_DOT_DOT, anon_sym_QMARK_DOT_DOT,
       anon_sym_SEMI, anon_sym_EQ_GT, anon_sym_when, anon_sym_case, anon_sym_else,
       anon_sym_AMP_AMP, anon_sym_PIPE_PIPE])]),
     (16878, 8, [(ACTIONS 3, 1, [anon_sym_SLASH_SLASH]), (ACTIONS 5, 1, [anon_sym_SLASH_STAR]),
       (ACTIONS 7, 1, [anon_sym_SLASH_SLASH_SLASH]), (ACTIONS 9, 1, [sym__block_comment]),
       (ACTIONS 11, 1, [sym__documentation_block_comment]), (STATE 665, 2, [sym_comment,
       sym_documentation_comment]), (ACTIONS 1663, 17, [anon_sym_EQ, anon_sym_QMARK_QMARK,
       anon_sym_QMARK, anon_sym_LT, anon_sym_GT, anon_sym_PIPE, anon_sym_CARET, anon_sym_AMP,
       anon_sym_LT_LT, anon_sym_GT_GT, anon_sym_GT_GT_GT, sym__additive_operator, anon_sym_STAR,
       anon_sym_SLASH, anon_sym_PERCENT, anon_sym_TILDE_SLASH, anon_sym_BANG]), (ACTIONS 1661,
       32, [anon_sym_RBRACE, anon_sym_LBRACK, anon_sym_COMMA, anon_sym_RBRACK, anon_sym_COLON,
       anon_sym_LPAREN, anon_sym_RPAREN, anon_sym_PLUS_EQ, anon_sym_DASH_EQ, anon_sym_STAR_EQ,
       anon_sym_SLASH_EQ, anon_sym_PERCENT_EQ, anon_sym_TILDE_SLASH_EQ, anon_sym_LT_LT_EQ,
       anon_sym_GT_GT_EQ, anon_sym_GT_GT_GT_EQ, anon_sym_AMP_EQ, anon_sym_CARET_EQ,
       anon_sym_PIPE_EQ, anon_sym_QMARK_QMARK_EQ, sym_equality_operator, anon_sym_LT_EQ,
       anon_sym_GT_EQ, sym_increment_operator, anon_sym_is, anon_sym_as, anon_sym_DOT,
       anon_sym_QMARK_DOT, anon_sym_EQ_GT, anon_sym_when, anon_sym_AMP_AMP,
       anon_sym_PIPE_PIPE])])]"

lemma small_run_115: "small_run 664 16775 ts_small_parse_table_115 666 16951"
  by (simp add: small_simps ts_small_parse_table_115_def)

definition ts_small_parse_table_116 :: "small_group list" where
  "ts_small_parse_table_116 = [
     (16951, 8, [(ACTIONS 3, 1, [anon_sym_SLASH_SLASH]), (ACTIONS 5, 1, [anon_sym_SLASH_STAR]),
       (ACTIONS 7, 1, [anon_sym_SLASH_SLASH_SLASH]), (ACTIONS 9, 1, [sym__block_comment]),
       (ACTIONS 11, 1, [sym__documentation_block_comment]), (STATE 666, 2, [sym_comment,
       sym_documentation_comment]), (ACTIONS 1659, 17, [anon_sym_EQ, anon_sym_QMARK_QMARK,
       anon_sym_QMARK, anon_sym_LT, anon_sym_GT, anon_sym_PIPE, anon_sym_CARET, anon_sym_AMP,
       anon_sym_LT_LT, anon_sym_GT_GT, anon_sym_GT_GT_GT, sym__additive_operator, anon_sym_STAR,
       anon_sym_SLASH, anon_sym_PERCENT, anon_sym_TILDE_SLASH, anon_sym_BANG]), (ACTIONS 1657,
       32, [anon_sym_RBRACE, anon_sym_LBRACK, anon_sym_COMMA, anon_sym_RBRACK, anon_sym_COLON,
       anon_sym_LPAREN, anon_sym_RPAREN, anon_sym_PLUS_EQ, anon_sym_DASH_EQ, anon_sym_STAR_EQ,
       anon_sym_SLASH_EQ, anon_sym_PERCENT_EQ, anon_sym_TILDE_SLASH_EQ, anon_sym_LT_LT_EQ,
       anon_sym_GT_GT_EQ, anon_sym_GT_GT_GT_EQ, anon_sym_AMP_EQ, anon_sym_CARET_EQ,
       anon_sym_PIPE_EQ, anon_sym_QMARK_QMARK_EQ, sym_equality_operator, anon_sym_LT_EQ,
       anon_sym_GT_EQ, sym_increment_operator, anon_sym_is, anon_sym_as, anon_sym_DOT,
       anon_sym_QMARK_DOT, anon_sym_EQ_GT, anon_sym_when, anon_sym_AMP_AMP,
       anon_sym_PIPE_PIPE])])]"

lemma small_run_116: "small_run 666 16951 ts_small_parse_table_116 667 17024"
  by (simp add: small_simps ts_small_parse_table_116_def)

definition ts_small_parse_table_117 :: "small_group list" where
  "ts_small_parse_table_117 = [
     (17024, 52, [(ACTIONS 3, 1, [anon_sym_SLASH_SLASH]), (ACTIONS 5, 1,
       [anon_sym_SLASH_STAR]), (ACTIONS 7, 1, [anon_sym_SLASH_SLASH_SLASH]), (ACTIONS 9, 1,
       [sym__block_comment]), (ACTIONS 11, 1, [sym__documentation_block_comment]), (ACTIONS 15,
       1, [sym_identifier]), (ACTIONS 17, 1, [anon_sym_LPAREN]), (ACTIONS 25, 1,
       [anon_sym_final]), (ACTIONS 27, 1, [anon_sym_inline]), (ACTIONS 29, 1, [anon_sym_class]),
       (ACTIONS 33, 1, [sym_void_type]), (ACTIONS 35, 1, [anon_sym_var]), (ACTIONS 45, 1,
       [anon_sym_Function]), (ACTIONS 47, 1, [anon_sym_get]), (ACTIONS 51, 1,
       [anon_sym_interface]), (ACTIONS 53, 1, [anon_sym_base]), (ACTIONS 55, 1,
       [anon_sym_abstract]), (ACTIONS 57, 1, [anon_sym_sealed]), (ACTIONS 59, 1,
       [anon_sym_mixin]), (ACTIONS 61, 1, [anon_sym_set]), (ACTIONS 63, 1, [anon_sym_typedef]),
       (ACTIONS 67, 1, [anon_sym_late]), (ACTIONS 69, 1, [anon_sym_external]), (ACTIONS 1627, 1,
       [anon_sym_part]), (ACTIONS 1629, 1, [anon_sym_enum]), (ACTIONS 1631, 1,
       [anon_sym_extension]), (ACTIONS 1635, 1, [sym_part_of_builtin]), (ACTIONS 1637, 1,
       [sym_const_builtin]), (STATE 1463, 1, [sym__function_builtin_identifier]), (STATE 1530, 1,
       [sym__type_name]), (STATE 1605, 1, [aux_sym__function_type_tails]), (STATE 1704, 1,
       [sym__function_type_tail]), (STATE 1796, 1, [sym__type_not_function]), (STATE 1805, 1,
       [sym_record_type]), (STATE 1848, 1, [sym_function_type]), (STATE 1880, 1,
       [sym__external_builtin]), (STATE 1896, 1, [sym__type_not_void_not_function]), (STATE 1934,
       1, [sym__late_builtin]), (STATE 1971, 1, [sym_final_builtin]), (STATE 2073, 1,
       [sym__typedef]), (STATE 2228, 1, [sym_abstract]), (STATE 2377, 1, [sym__set]), (STATE
       2411, 1, [sym__get]), (STATE 2419, 1, [sym__type]), (STATE 2970, 1, [sym_inferred_type]),
       (STATE 3001, 1, [sym_base]), (STATE 3026, 1, [sym_mixin]), (STATE 3032, 1,
       [sym__class_modifiers]), (STATE 3560, 1, [sym__mixin_class_modifiers]), (STATE 667, 2,
       [sym_comment, sym_documentation_comment]), (STATE 3539, 2, [sym_interface, sym_sealed]),
       (STATE 2195, 3, [sym_getter_signature, sym_setter_signature, sym_function_signature])])]"

lemma small_run_117: "small_run 667 17024 ts_small_parse_table_117 668 17185"
  by (simp add: small_simps ts_small_parse_table_117_def)

definition ts_small_parse_table_118 :: "small_group list" where
  "ts_small_parse_table_118 = [
     (17185, 24, [(ACTIONS 3, 1, [anon_sym_SLASH_SLASH]), (ACTIONS 5, 1,
       [anon_sym_SLASH_STAR]), (ACTIONS 7, 1, [anon_sym_SLASH_SLASH_SLASH]), (ACTIONS 9, 1,
       [sym__block_comment]), (ACTIONS 11, 1, [sym__documentation_block_comment]), (ACTIONS 1999,
       1, [anon_sym_LBRACK]), (ACTIONS 2001, 1, [anon_sym_LPAREN]), (ACTIONS 2009, 1,
       [anon_sym_BANG]), (ACTIONS 2011, 1, [anon_sym_DOT]), (ACTIONS 2013, 1,
       [anon_sym_QMARK_DOT]), (ACTIONS 2025, 1, [anon_sym_QMARK]), (ACTIONS 2028, 1,
       [anon_sym_LT]), (STATE 552, 1, [sym_index_selector]), (STATE 570, 1,
       [sym__assignable_selector]), (STATE 682, 1, [aux_sym__assignable_selector_part_repeat1]),
       (STATE 869, 1, [sym_type_arguments]), (STATE 964, 1, [sym_selector]), (STATE 992, 1,
       [sym_arguments]), (STATE 1990, 1, [sym__assignable_selector_part]), (STATE 567, 2,
       [sym_unconditional_assignable_selector, sym_conditional_assignable_selector]), (STATE 668,
       2, [sym_comment, sym_documentation_comment]), (STATE 995, 2, [sym__exclamation_operator,
       sym_argument_part]), (ACTIONS 2031, 5, [anon_sym_GT, anon_sym_PIPE, anon_sym_AMP,
       anon_sym_GT_GT, anon_sym_SLASH]), (ACTIONS 2017, 26, [anon_sym_RBRACE, anon_sym_COMMA,
       anon_sym_RBRACK, anon_sym_COLON, anon_sym_RPAREN, anon_sym_QMARK_QMARK,
       sym_equality_operator, anon_sym_LT_EQ, anon_sym_GT_EQ, anon_sym_CARET, anon_sym_LT_LT,
       anon_sym_GT_GT_GT, sym__additive_operator, anon_sym_STAR, anon_sym_PERCENT,
       anon_sym_TILDE_SLASH, anon_sym_is, anon_sym_as, anon_sym_DOT_DOT, anon_sym_QMARK_DOT_DOT,
       anon_sym_SEMI, anon_sym_EQ_GT, anon_sym_case, anon_sym_else, anon_sym_AMP_AMP,
       anon_sym_PIPE_PIPE])])]"

lemma small_run_118: "small_run 668 17185 ts_small_parse_table_118 669 17290"
  by (simp add: small_simps ts_small_parse_table_118_def)

definition ts_small_parse_table_119 :: "small_group list" where
  "ts_small_parse_table_119 = [
     (17290, 23, [(ACTIONS 3, 1, [anon_sym_SLASH_SLASH]), (ACTIONS 5, 1,
       [anon_sym_SLASH_STAR]), (ACTIONS 7, 1, [anon_sym_SLASH_SLASH_SLASH]), (ACTIONS 9, 1,
       [sym__block_comment]), (ACTIONS 11, 1, [sym__documentation_block_comment]), (ACTIONS 2001,
       1, [anon_sym_LPAREN]), (ACTIONS 2005, 1, [anon_sym_LT]), (ACTIONS 2009, 1,
       [anon_sym_BANG]), (ACTIONS 2042, 1, [anon_sym_LBRACK]), (ACTIONS 2044, 1,
       [anon_sym_QMARK]), (ACTIONS 2046, 1, [anon_sym_DOT]), (ACTIONS 2048, 1,
       [anon_sym_QMARK_DOT]), (STATE 663, 1, [aux_sym__assignable_selector_part_repeat1]), (STATE
       836, 1, [sym_index_selector]), (STATE 869, 1, [sym_type_arguments]), (STATE 873, 1,
       [sym__assignable_selector]), (STATE 964, 1, [sym_selector]), (STATE 992, 1,
       [sym_arguments]), (STATE 669, 2, [sym_comment, sym_documentation_comment]), (STATE 858, 2,
       [sym_unconditional_assignable_selector, sym_conditional_assignable_selector]), (STATE 995,
       2, [sym__exclamation_operator, sym_argument_part]), (ACTIONS 2130, 5, [anon_sym_GT,
       anon_sym_PIPE, anon_sym_AMP, anon_sym_GT_GT, anon_sym_SLASH]), (ACTIONS 2128, 27,
       [anon_sym_RBRACE, anon_sym_COMMA, anon_sym_RBRACK, anon_sym_COLON, anon_sym_RPAREN,
       anon_sym_QMARK_QMARK, sym_equality_operator, anon_sym_LT_EQ, anon_sym_GT_EQ,
       anon_sym_CARET, anon_sym_LT_LT, anon_sym_GT_GT_GT, sym__additive_operator, anon_sym_STAR,
       anon_sym_PERCENT, anon_sym_TILDE_SLASH, anon_sym_is, anon_sym_as, anon_sym_DOT_DOT,
       anon_sym_QMARK_DOT_DOT, anon_sym_SEMI, anon_sym_EQ_GT, anon_sym_when, anon_sym_case,
       anon_sym_else, anon_sym_AMP_AMP, anon_sym_PIPE_PIPE])])]"

lemma small_run_119: "small_run 669 17290 ts_small_parse_table_119 670 17393"
  by (simp add: small_simps ts_small_parse_table_119_def)

definition ts_small_parse_table_120 :: "small_group list" where
  "ts_small_parse_table_120 = [
     (17393, 23, [(ACTIONS 3, 1, [anon_sym_SLASH_SLASH]), (ACTIONS 5, 1,
       [anon_sym_SLASH_STAR]), (ACTIONS 7, 1, [anon_sym_SLASH_SLASH_SLASH]), (ACTIONS 9, 1,
       [sym__block_comment]), (ACTIONS 11, 1, [sym__documentation_block_comment]), (ACTIONS 1999,
       1, [anon_sym_LBRACK]), (ACTIONS 2001, 1, [anon_sym_LPAREN]), (ACTIONS 2003, 1,
       [anon_sym_QMARK]), (ACTIONS 2005, 1, [anon_sym_LT]), (ACTIONS 2009, 1, [anon_sym_BANG]),
       (ACTIONS 2011, 1, [anon_sym_DOT]), (ACTIONS 2013, 1, [anon_sym_QMARK_DOT]), (STATE 552, 1,
       [sym_index_selector]), (STATE 576, 1, [sym__assignable_selector]), (STATE 663, 1,
       [aux_sym__assignable_selector_part_repeat1]), (STATE 869, 1, [sym_type_arguments]), (STATE
       964, 1, [sym_selector]), (STATE 992, 1, [sym_arguments]), (STATE 567, 2,
       [sym_unconditional_assignable_selector, sym_conditional_assignable_selector]), (STATE 670,
       2, [sym_comment, sym_documentation_comment]), (STATE 995, 2, [sym__exclamation_operator,
       sym_argument_part]), (ACTIONS 2130, 5, [anon_sym_GT, anon_sym_PIPE, anon_sym_AMP,
       anon_sym_GT_GT, anon_sym_SLASH]), (ACTIONS 2128, 27, [anon_sym_RBRACE, anon_sym_COMMA,
       anon_sym_RBRACK, anon_sym_COLON, anon_sym_RPAREN, anon_sym_QMARK_QMARK,
       sym_equality_operator, anon_sym_LT_EQ, anon_sym_GT_EQ, anon_sym_CARET, anon_sym_LT_LT,
       anon_sym_GT_GT_GT, sym__additive_operator, anon_sym_STAR, anon_sym_PERCENT,
       anon_sym_TILDE_SLASH, anon_sym_is, anon_sym_as, anon_sym_DOT_DOT, anon_sym_QMARK_DOT_DOT,
       anon_sym_SEMI, anon_sym_EQ_GT, anon_sym_when, anon_sym_case, anon_sym_else,
       anon_sym_AMP_AMP, anon_sym_PIPE_PIPE])]),
     (17496, 8, [(ACTIONS 3, 1, [anon_sym_SLASH_SLASH]), (ACTIONS 5, 1, [anon_sym_SLASH_STAR]),
       (ACTIONS 7, 1, [anon_sym_SLASH_SLASH_SLASH]), (ACTIONS 9, 1, [sym__block_comment]),
       (ACTIONS 11, 1, [sym__documentation_block_comment]), (STATE 671, 2, [sym_comment,
       sym_documentation_comment]), (ACTIONS 1697, 17, [anon_sym_EQ, anon_sym_QMARK_QMARK,
       anon_sym_QMARK, anon_sym_LT, anon_sym_GT, anon_sym_PIPE, anon_sym_CARET, anon_sym_AMP,
       anon_sym_LT_LT, anon_sym_GT_GT, anon_sym_GT_GT_GT, sym__additive_operator, anon_sym_STAR,
       anon_sym_SLASH, anon_sym_PERCENT, anon_sym_TILDE_SLASH, anon_sym_BANG]), (ACTIONS 1695,
       32, [anon_sym_RBRACE, anon_sym_LBRACK, anon_sym_COMMA, anon_sym_RBRACK, anon_sym_COLON,
       anon_sym_LPAREN, anon_sym_RPAREN, anon_sym_PLUS_EQ, anon_sym_DASH_EQ, anon_sym_STAR_EQ,
       anon_sym_SLASH_EQ, anon_sym_PERCENT_EQ, anon_sym_TILDE_SLASH_EQ, anon_sym_LT_LT_EQ,
       anon_sym_GT_GT_EQ, anon_sym_GT_GT_GT_EQ, anon_sym_AMP_EQ, anon_sym_CARET_EQ,
       anon_sym_PIPE_EQ, anon_sym_QMARK_QMARK_EQ, sym_equality_operator, anon_sym_LT_EQ,
       anon_sym_GT_EQ, sym_increment_operator, anon_sym_is, anon_sym_as, anon_sym_DOT,
       anon_sym_QMARK_DOT, anon_sym_EQ_GT, anon_sym_when, anon_sym_AMP_AMP,
       anon_sym_PIPE_PIPE])])]"

lemma small_run_120: "small_run 670 17393 ts_small_parse_table_120 672 17569"
  by (simp add: small_simps ts_small_parse_table_120_def)

definition ts_small_parse_table_121 :: "small_group list" where
  "ts_small_parse_table_121 = [
     (17569, 23, [(ACTIONS 3, 1, [anon_sym_SLASH_SLASH]), (ACTIONS 5, 1,
       [anon_sym_SLASH_STAR]), (ACTIONS 7, 1, [anon_sym_SLASH_SLASH_SLASH]), (ACTIONS 9, 1,
       [sym__block_comment]), (ACTIONS 11, 1, [sym__documentation_block_comment]), (ACTIONS 2108,
       1, [anon_sym_LPAREN]), (ACTIONS 2114, 1, [anon_sym_LT]), (ACTIONS 2119, 1,
       [anon_sym_BANG]), (ACTIONS 2132, 1, [anon_sym_LBRACK]), (ACTIONS 2135, 1,
       [anon_sym_QMARK]), (ACTIONS 2138, 1, [anon_sym_DOT]), (ACTIONS 2141, 1,
       [anon_sym_QMARK_DOT]), (STATE 552, 1, [sym_index_selector]), (STATE 576, 1,
       [sym__assignable_selector]), (STATE 663, 1, [aux_sym__assignable_selector_part_repeat1]),
       (STATE 869, 1, [sym_type_arguments]), (STATE 964, 1, [sym_selector]), (STATE 992, 1,
       [sym_arguments]), (STATE 567, 2, [sym_unconditional_assignable_selector,
       sym_conditional_assignable_selector]), (STATE 672, 2, [sym_comment,
       sym_documentation_comment]), (STATE 995, 2, [sym__exclamation_operator,
       sym_argument_part]), (ACTIONS 2117, 5, [anon_sym_GT, anon_sym_PIPE, anon_sym_AMP,
       anon_sym_GT_GT, anon_sym_SLASH]), (ACTIONS 2103, 27, [anon_sym_RBRACE, anon_sym_COMMA,
       anon_sym_RBRACK, anon_sym_COLON, anon_sym_RPAREN, anon_sym_QMARK_QMARK,
       sym_equality_operator, anon_sym_LT_EQ, anon_sym_GT_EQ, anon_sym_CARET, anon_sym_LT_LT,
       anon_sym_GT_GT_GT, sym__additive_operator, anon_sym_STAR, anon_sym_PERCENT,
       anon_sym_TILDE_SLASH, anon_sym_is, anon_sym_as, anon_sym_DOT_DOT, anon_sym_QMARK_DOT_DOT,
       anon_sym_SEMI, anon_sym_EQ_GT, anon_sym_when, anon_sym_case, anon_sym_else,
       anon_sym_AMP_AMP, anon_sym_PIPE_PIPE])]),
     (17672, 10, [(ACTIONS 3, 1, [anon_sym_SLASH_SLASH]), (ACTIONS 5, 1,
       [anon_sym_SLASH_STAR]), (ACTIONS 7, 1, [anon_sym_SLASH_SLASH_SLASH]), (ACTIONS 9, 1,
       [sym__block_comment]), (ACTIONS 11, 1, [sym__documentation_block_comment]), (ACTIONS 1699,
       1, [anon_sym_EQ]), (STATE 673, 2, [sym_comment, sym_documentation_comment]), (ACTIONS
       1701, 14, [anon_sym_PLUS_EQ, anon_sym_DASH_EQ, anon_sym_STAR_EQ, anon_sym_SLASH_EQ,
       anon_sym_PERCENT_EQ, anon_sym_TILDE_SLASH_EQ, anon_sym_LT_LT_EQ, anon_sym_GT_GT_EQ,
       anon_sym_GT_GT_GT_EQ, anon_sym_AMP_EQ, anon_sym_CARET_EQ, anon_sym_PIPE_EQ,
       anon_sym_QMARK_QMARK_EQ, sym_increment_operator]), (ACTIONS 1686, 16,
       [anon_sym_QMARK_QMARK, anon_sym_QMARK, anon_sym_LT, anon_sym_GT, anon_sym_PIPE,
       anon_sym_CARET, anon_sym_AMP, anon_sym_LT_LT, anon_sym_GT_GT, anon_sym_GT_GT_GT,
       sym__additive_operator, anon_sym_STAR, anon_sym_SLASH, anon_sym_PERCENT,
       anon_sym_TILDE_SLASH, anon_sym_BANG]), (ACTIONS 1680, 18, [anon_sym_RBRACE,
       anon_sym_LBRACK, anon_sym_COMMA, anon_sym_RBRACK, anon_sym_COLON, anon_sym_LPAREN,
       anon_sym_RPAREN, sym_equality_operator, anon_sym_LT_EQ, anon_sym_GT_EQ, anon_sym_is,
       anon_sym_as, anon_sym_DOT, anon_sym_QMARK_DOT, anon_sym_EQ_GT, anon_sym_when,
       anon_sym_AMP_AMP, anon_sym_PIPE_PIPE])])]"

lemma small_run_121: "small_run 672 17569 ts_small_parse_table_121 674 17749"
  by (simp add: small_simps ts_small_parse_table_121_def)

definition ts_small_parse_table_122 :: "small_group list" where
  "ts_small_parse_table_122 = [
     (17749, 24, [(ACTIONS 3, 1, [anon_sym_SLASH_SLASH]), (ACTIONS 5, 1,
       [anon_sym_SLASH_STAR]), (ACTIONS 7, 1, [anon_sym_SLASH_SLASH_SLASH]), (ACTIONS 9, 1,
       [sym__block_comment]), (ACTIONS 11, 1, [sym__documentation_block_comment]), (ACTIONS 2001,
       1, [anon_sym_LPAREN]), (ACTIONS 2009, 1, [anon_sym_BANG]), (ACTIONS 2028, 1,
       [anon_sym_LT]), (ACTIONS 2042, 1, [anon_sym_LBRACK]), (ACTIONS 2046, 1, [anon_sym_DOT]),
       (ACTIONS 2048, 1, [anon_sym_QMARK_DOT]), (ACTIONS 2055, 1, [anon_sym_QMARK]), (STATE 679,
       1, [aux_sym__assignable_selector_part_repeat1]), (STATE 836, 1, [sym_index_selector]),
       (STATE 859, 1, [sym__assignable_selector]), (STATE 869, 1, [sym_type_arguments]), (STATE
       964, 1, [sym_selector]), (STATE 992, 1, [sym_arguments]), (STATE 1990, 1,
       [sym__assignable_selector_part]), (STATE 674, 2, [sym_comment,
       sym_documentation_comment]), (STATE 858, 2, [sym_unconditional_assignable_selector,
       sym_conditional_assignable_selector]), (STATE 995, 2, [sym__exclamation_operator,
       sym_argument_part]), (ACTIONS 2031, 5, [anon_sym_GT, anon_sym_PIPE, anon_sym_AMP,
       anon_sym_GT_GT, anon_sym_SLASH]), (ACTIONS 2017, 26, [anon_sym_RBRACE, anon_sym_COMMA,
       anon_sym_RBRACK, anon_sym_COLON, anon_sym_RPAREN, anon_sym_QMARK_QMARK,
       sym_equality_operator, anon_sym_LT_EQ, anon_sym_GT_EQ, anon_sym_CARET, anon_sym_LT_LT,
       anon_sym_GT_GT_GT, sym__additive_operator, anon_sym_STAR, anon_sym_PERCENT,
       anon_sym_TILDE_SLASH, anon_sym_is, anon_sym_as, anon_sym_DOT_DOT, anon_sym_QMARK_DOT_DOT,
       anon_sym_SEMI, anon_sym_EQ_GT, anon_sym_case, anon_sym_else, anon_sym_AMP_AMP,
       anon_sym_PIPE_PIPE])]),
     (17854, 10, [(ACTIONS 3, 1, [anon_sym_SLASH_SLASH]), (ACTIONS 5, 1,
       [anon_sym_SLASH_STAR]), (ACTIONS 7, 1, [anon_sym_SLASH_SLASH_SLASH]), (ACTIONS 9, 1,
       [sym__block_comment]), (ACTIONS 11, 1, [sym__documentation_block_comment]), (ACTIONS 1682,
       1, [anon_sym_EQ]), (STATE 675, 2, [sym_comment, sym_documentation_comment]), (ACTIONS
       1684, 14, [anon_sym_PLUS_EQ, anon_sym_DASH_EQ, anon_sym_STAR_EQ, anon_sym_SLASH_EQ,
       anon_sym_PERCENT_EQ, anon_sym_TILDE_SLASH_EQ, anon_sym_LT_LT_EQ, anon_sym_GT_GT_EQ,
       anon_sym_GT_GT_GT_EQ, anon_sym_AMP_EQ, anon_sym_CARET_EQ, anon_sym_PIPE_EQ,
       anon_sym_QMARK_QMARK_EQ, sym_increment_operator]), (ACTIONS 1686, 16,
       [anon_sym_QMARK_QMARK, anon_sym_QMARK, anon_sym_LT, anon_sym_GT, anon_sym_PIPE,
       anon_sym_CARET, anon_sym_AMP, anon_sym_LT_LT, anon_sym_GT_GT, anon_sym_GT_GT_GT,
       sym__additive_operator, anon_sym_STAR, anon_sym_SLASH, anon_sym_PERCENT,
       anon_sym_TILDE_SLASH, anon_sym_BANG]), (ACTIONS 1680, 18, [anon_sym_RBRACE,
       anon_sym_LBRACK, anon_sym_COMMA, anon_sym_RBRACK, anon_sym_COLON, anon_sym_LPAREN,
       anon_sym_RPAREN, sym_equality_operator, anon_sym_LT_EQ, anon_sym_GT_EQ, anon_sym_is,
       anon_sym_as, anon_sym_DOT, anon_sym_QMARK_DOT, anon_sym_EQ_GT, anon_sym_when,
       anon_sym_AMP_AMP, anon_sym_PIPE_PIPE])])]"

lemma small_run_122: "small_run 674 17749 ts_small_parse_table_122 676 17931"
  by (simp add: small_simps ts_small_parse_table_122_def)

definition ts_small_parse_table_123 :: "small_group list" where
  "ts_small_parse_table_123 = [
     (17931, 8, [(ACTIONS 3, 1, [anon_sym_SLASH_SLASH]), (ACTIONS 5, 1, [anon_sym_SLASH_STAR]),
       (ACTIONS 7, 1, [anon_sym_SLASH_SLASH_SLASH]), (ACTIONS 9, 1, [sym__block_comment]),
       (ACTIONS 11, 1, [sym__documentation_block_comment]), (STATE 676, 2, [sym_comment,
       sym_documentation_comment]), (ACTIONS 1645, 17, [anon_sym_EQ, anon_sym_QMARK_QMARK,
       anon_sym_QMARK, anon_sym_LT, anon_sym_GT, anon_sym_PIPE, anon_sym_CARET, anon_sym_AMP,
       anon_sym_LT_LT, anon_sym_GT_GT, anon_sym_GT_GT_GT, sym__additive_operator, anon_sym_STAR,
       anon_sym_SLASH, anon_sym_PERCENT, anon_sym_TILDE_SLASH, anon_sym_BANG]), (ACTIONS 1643,
       32, [anon_sym_RBRACE, anon_sym_LBRACK, anon_sym_COMMA, anon_sym_RBRACK, anon_sym_COLON,
       anon_sym_LPAREN, anon_sym_RPAREN, anon_sym_PLUS_EQ, anon_sym_DASH_EQ, anon_sym_STAR_EQ,
       anon_sym_SLASH_EQ, anon_sym_PERCENT_EQ, anon_sym_TILDE_SLASH_EQ, anon_sym_LT_LT_EQ,
       anon_sym_GT_GT_EQ, anon_sym_GT_GT_GT_EQ, anon_sym_AMP_EQ, anon_sym_CARET_EQ,
       anon_sym_PIPE_EQ, anon_sym_QMARK_QMARK_EQ, sym_equality_operator, anon_sym_LT_EQ,
       anon_sym_GT_EQ, sym_increment_operator, anon_sym_is, anon_sym_as, anon_sym_DOT,
       anon_sym_QMARK_DOT, anon_sym_EQ_GT, anon_sym_when, anon_sym_AMP_AMP,
       anon_sym_PIPE_PIPE])])]"

lemma small_run_123: "small_run 676 17931 ts_small_parse_table_123 677 18004"
  by (simp add: small_simps ts_small_parse_table_123_def)

definition ts_small_parse_table_124 :: "small_group list" where
  "ts_small_parse_table_124 = [
     (18004, 29, [(ACTIONS 3, 1, [anon_sym_SLASH_SLASH]), (ACTIONS 5, 1,
       [anon_sym_SLASH_STAR]), (ACTIONS 7, 1, [anon_sym_SLASH_SLASH_SLASH]), (ACTIONS 9, 1,
       [sym__block_comment]), (ACTIONS 11, 1, [sym__documentation_block_comment]), (ACTIONS 33,
       1, [sym_void_type]), (ACTIONS 45, 1, [anon_sym_Function]), (ACTIONS 143, 1,
       [anon_sym_AT]), (ACTIONS 2144, 1, [sym_identifier]), (ACTIONS 2151, 1, [anon_sym_LPAREN]),
       (ACTIONS 2154, 1, [anon_sym_QMARK]), (ACTIONS 2156, 1, [anon_sym_GT]), (STATE 1308, 1,
       [aux_sym__metadata_repeat1]), (STATE 1361, 1, [sym_annotation]), (STATE 1463, 1,
       [sym__function_builtin_identifier]), (STATE 1530, 1, [sym__type_name]), (STATE 1605, 1,
       [aux_sym__function_type_tails]), (STATE 1704, 1, [sym__function_type_tail]), (STATE 1796,
       1, [sym__type_not_function]), (STATE 1805, 1, [sym_record_type]), (STATE 1848, 1,
       [sym_function_type]), (STATE 1896, 1, [sym__type_not_void_not_function]), (STATE 2456, 1,
       [sym_nullable_type]), (STATE 2723, 1, [sym__type]), (STATE 2778, 1, [sym_type_parameter]),
       (STATE 2779, 1, [sym__metadata]), (STATE 677, 2, [sym_comment,
       sym_documentation_comment]), (ACTIONS 2147, 12, [anon_sym_POUND, sym_hex_integer_literal,
       anon_sym_DQUOTE_DQUOTE_DQUOTE, anon_sym_SQUOTE_SQUOTE_SQUOTE,
       anon_sym_r_DQUOTE_DQUOTE_DQUOTE, anon_sym_r_SQUOTE_SQUOTE_SQUOTE, anon_sym_LBRACE,
       anon_sym_LBRACK, anon_sym_LT, sym_increment_operator, anon_sym_BANG, anon_sym_TILDE]),
       (ACTIONS 2149, 16, [sym_decimal_integer_literal, sym_decimal_floating_point_literal,
       anon_sym_true, anon_sym_false, anon_sym_DQUOTE, anon_sym_SQUOTE, anon_sym_r_DQUOTE,
       anon_sym_r_SQUOTE, anon_sym_null, sym_minus_operator, anon_sym_await, anon_sym_switch,
       anon_sym_new, sym_const_builtin, anon_sym_this, anon_sym_super])])]"

lemma small_run_124: "small_run 677 18004 ts_small_parse_table_124 678 18119"
  by (simp add: small_simps ts_small_parse_table_124_def)

definition ts_small_parse_table_125 :: "small_group list" where
  "ts_small_parse_table_125 = [
     (18119, 16, [(ACTIONS 3, 1, [anon_sym_SLASH_SLASH]), (ACTIONS 5, 1,
       [anon_sym_SLASH_STAR]), (ACTIONS 7, 1, [anon_sym_SLASH_SLASH_SLASH]), (ACTIONS 9, 1,
       [sym__block_comment]), (ACTIONS 11, 1, [sym__documentation_block_comment]), (ACTIONS 1328,
       1, [anon_sym_EQ]), (ACTIONS 1341, 1, [anon_sym_DOT]), (ACTIONS 2015, 1, [anon_sym_COMMA]),
       (STATE 1612, 1, [sym__type_dot_identifier]), (ACTIONS 1320, 2, [anon_sym_Function,
       sym_identifier]), (ACTIONS 1334, 2, [anon_sym_QMARK, anon_sym_LT]), (ACTIONS 1516, 2,
       [anon_sym_LPAREN, anon_sym_RPAREN]), (STATE 678, 2, [sym_comment,
       sym_documentation_comment]), (ACTIONS 1322, 8, [anon_sym_LBRACK, sym_equality_operator,
       anon_sym_LT_EQ, anon_sym_GT_EQ, anon_sym_DOT_DOT, anon_sym_QMARK_DOT_DOT,
       anon_sym_AMP_AMP, anon_sym_PIPE_PIPE]), (ACTIONS 1330, 14, [anon_sym_PLUS_EQ,
       anon_sym_DASH_EQ, anon_sym_STAR_EQ, anon_sym_SLASH_EQ, anon_sym_PERCENT_EQ,
       anon_sym_TILDE_SLASH_EQ, anon_sym_LT_LT_EQ, anon_sym_GT_GT_EQ, anon_sym_GT_GT_GT_EQ,
       anon_sym_AMP_EQ, anon_sym_CARET_EQ, anon_sym_PIPE_EQ, anon_sym_QMARK_QMARK_EQ,
       sym_increment_operator]), (ACTIONS 1332, 17, [anon_sym_QMARK_QMARK, anon_sym_GT,
       anon_sym_PIPE, anon_sym_CARET, anon_sym_AMP, anon_sym_LT_LT, anon_sym_GT_GT,
       anon_sym_GT_GT_GT, sym__additive_operator, anon_sym_STAR, anon_sym_SLASH,
       anon_sym_PERCENT, anon_sym_TILDE_SLASH, anon_sym_BANG, anon_sym_is, anon_sym_as,
       anon_sym_QMARK_DOT])])]"

lemma small_run_125: "small_run 678 18119 ts_small_parse_table_125 679 18208"
  by (simp add: small_simps ts_small_parse_table_125_def)

definition ts_small_parse_table_126 :: "small_group list" where
  "ts_small_parse_table_126 = [
     (18208, 23, [(ACTIONS 3, 1, [anon_sym_SLASH_SLASH]), (ACTIONS 5, 1,
       [anon_sym_SLASH_STAR]), (ACTIONS 7, 1, [anon_sym_SLASH_SLASH_SLASH]), (ACTIONS 9, 1,
       [sym__block_comment]), (ACTIONS 11, 1, [sym__documentation_block_comment]), (ACTIONS 2001,
       1, [anon_sym_LPAREN]), (ACTIONS 2009, 1, [anon_sym_BANG]), (ACTIONS 2042, 1,
       [anon_sym_LBRACK]), (ACTIONS 2046, 1, [anon_sym_DOT]), (ACTIONS 2048, 1,
       [anon_sym_QMARK_DOT]), (ACTIONS 2111, 1, [anon_sym_QMARK]), (ACTIONS 2114, 1,
       [anon_sym_LT]), (STATE 663, 1, [aux_sym__assignable_selector_part_repeat1]), (STATE 836,
       1, [sym_index_selector]), (STATE 869, 1, [sym_type_arguments]), (STATE 873, 1,
       [sym__assignable_selector]), (STATE 964, 1, [sym_selector]), (STATE 992, 1,
       [sym_arguments]), (STATE 679, 2, [sym_comment, sym_documentation_comment]), (STATE 858, 2,
       [sym_unconditional_assignable_selector, sym_conditional_assignable_selector]), (STATE 995,
       2, [sym__exclamation_operator, sym_argument_part]), (ACTIONS 2117, 5, [anon_sym_GT,
       anon_sym_PIPE, anon_sym_AMP, anon_sym_GT_GT, anon_sym_SLASH]), (ACTIONS 2103, 26,
       [anon_sym_RBRACE, anon_sym_COMMA, anon_sym_RBRACK, anon_sym_COLON, anon_sym_RPAREN,
       anon_sym_QMARK_QMARK, sym_equality_operator, anon_sym_LT_EQ, anon_sym_GT_EQ,
       anon_sym_CARET, anon_sym_LT_LT, anon_sym_GT_GT_GT, sym__additive_operator, anon_sym_STAR,
       anon_sym_PERCENT, anon_sym_TILDE_SLASH, anon_sym_is, anon_sym_as, anon_sym_DOT_DOT,
       anon_sym_QMARK_DOT_DOT, anon_sym_SEMI, anon_sym_EQ_GT, anon_sym_case, anon_sym_else,
       anon_sym_AMP_AMP, anon_sym_PIPE_PIPE])])]"

lemma small_run_126: "small_run 679 18208 ts_small_parse_table_126 680 18310"
  by (simp add: small_simps ts_small_parse_table_126_def)

definition ts_small_parse_table_127 :: "small_group list" where
  "ts_small_parse_table_127 = [
     (18310, 51, [(ACTIONS 3, 1, [anon_sym_SLASH_SLASH]), (ACTIONS 5, 1,
       [anon_sym_SLASH_STAR]), (ACTIONS 7, 1, [anon_sym_SLASH_SLASH_SLASH]), (ACTIONS 9, 1,
       [sym__block_comment]), (ACTIONS 11, 1, [sym__documentation_block_comment]), (ACTIONS 15,
       1, [sym_identifier]), (ACTIONS 17, 1, [anon_sym_LPAREN]), (ACTIONS 25, 1,
       [anon_sym_final]), (ACTIONS 27, 1, [anon_sym_inline]), (ACTIONS 29, 1, [anon_sym_class]),
       (ACTIONS 33, 1, [sym_void_type]), (ACTIONS 35, 1, [anon_sym_var]), (ACTIONS 45, 1,
       [anon_sym_Function]), (ACTIONS 47, 1, [anon_sym_get]), (ACTIONS 51, 1,
       [anon_sym_interface]), (ACTIONS 53, 1, [anon_sym_base]), (ACTIONS 55, 1,
       [anon_sym_abstract]), (ACTIONS 57, 1, [anon_sym_sealed]), (ACTIONS 59, 1,
       [anon_sym_mixin]), (ACTIONS 61, 1, [anon_sym_set]), (ACTIONS 63, 1, [anon_sym_typedef]),
       (ACTIONS 67, 1, [anon_sym_late]), (ACTIONS 69, 1, [anon_sym_external]), (ACTIONS 1629, 1,
       [anon_sym_enum]), (ACTIONS 1631, 1, [anon_sym_extension]), (ACTIONS 1635, 1,
       [sym_part_of_builtin]), (ACTIONS 1637, 1, [sym_const_builtin]), (STATE 1463, 1,
       [sym__function_builtin_identifier]), (STATE 1530, 1, [sym__type_name]), (STATE 1605, 1,
       [aux_sym__function_type_tails]), (STATE 1704, 1, [sym__function_type_tail]), (STATE 1796,
       1, [sym__type_not_function]), (STATE 1805, 1, [sym_record_type]), (STATE 1848, 1,
       [sym_function_type]), (STATE 1880, 1, [sym__external_builtin]), (STATE 1896, 1,
       [sym__type_not_void_not_function]), (STATE 1934, 1, [sym__late_builtin]), (STATE 1971, 1,
       [sym_final_builtin]), (STATE 2073, 1, [sym__typedef]), (STATE 2228, 1, [sym_abstract]),
       (STATE 2377, 1, [sym__set]), (STATE 2411, 1, [sym__get]), (STATE 2419, 1, [sym__type]),
       (STATE 2970, 1, [sym_inferred_type]), (STATE 3001, 1, [sym_base]), (STATE 3026, 1,
       [sym_mixin]), (STATE 3032, 1, [sym__class_modifiers]), (STATE 3560, 1,
       [sym__mixin_class_modifiers]), (STATE 680, 2, [sym_comment, sym_documentation_comment]),
       (STATE 3539, 2, [sym_interface, sym_sealed]), (STATE 2195, 3, [sym_getter_signature,
       sym_setter_signature, sym_function_signature])])]"

lemma small_run_127: "small_run 680 18310 ts_small_parse_table_127 681 18468"
  by (simp add: small_simps ts_small_parse_table_127_def)

definition ts_small_parse_table_128 :: "small_group list" where
  "ts_small_parse_table_128 = [
     (18468, 15, [(ACTIONS 3, 1, [anon_sym_SLASH_SLASH]), (ACTIONS 5, 1,
       [anon_sym_SLASH_STAR]), (ACTIONS 7, 1, [anon_sym_SLASH_SLASH_SLASH]), (ACTIONS 9, 1,
       [sym__block_comment]), (ACTIONS 11, 1, [sym__documentation_block_comment]), (ACTIONS 1328,
       1, [anon_sym_EQ]), (ACTIONS 1334, 1, [anon_sym_LT]), (ACTIONS 1341, 1, [anon_sym_DOT]),
       (ACTIONS 1502, 1, [anon_sym_COLON]), (ACTIONS 1516, 1, [anon_sym_LPAREN]), (STATE 1612, 1,
       [sym__type_dot_identifier]), (STATE 681, 2, [sym_comment, sym_documentation_comment]),
       (ACTIONS 1322, 12, [anon_sym_LBRACK, anon_sym_COMMA, anon_sym_RPAREN,
       sym_equality_operator, anon_sym_LT_EQ, anon_sym_GT_EQ, anon_sym_is, anon_sym_as,
       anon_sym_DOT_DOT, anon_sym_QMARK_DOT_DOT, anon_sym_AMP_AMP, anon_sym_PIPE_PIPE]), (ACTIONS
       1330, 14, [anon_sym_PLUS_EQ, anon_sym_DASH_EQ, anon_sym_STAR_EQ, anon_sym_SLASH_EQ,
       anon_sym_PERCENT_EQ, anon_sym_TILDE_SLASH_EQ, anon_sym_LT_LT_EQ, anon_sym_GT_GT_EQ,
       anon_sym_GT_GT_GT_EQ, anon_sym_AMP_EQ, anon_sym_CARET_EQ, anon_sym_PIPE_EQ,
       anon_sym_QMARK_QMARK_EQ, sym_increment_operator]), (ACTIONS 1332, 16,
       [anon_sym_QMARK_QMARK, anon_sym_QMARK, anon_sym_GT, anon_sym_PIPE, anon_sym_CARET,
       anon_sym_AMP, anon_sym_LT_LT, anon_sym_GT_GT, anon_sym_GT_GT_GT, sym__additive_operator,
       anon_sym_STAR, anon_sym_SLASH, anon_sym_PERCENT, anon_sym_TILDE_SLASH, anon_sym_BANG,
       anon_sym_QMARK_DOT])]),
     (18554, 23, [(ACTIONS 3, 1, [anon_sym_SLASH_SLASH]), (ACTIONS 5, 1,
       [anon_sym_SLASH_STAR]), (ACTIONS 7, 1, [anon_sym_SLASH_SLASH_SLASH]), (ACTIONS 9, 1,
       [sym__block_comment]), (ACTIONS 11, 1, [sym__documentation_block_comment]), (ACTIONS 1999,
       1, [anon_sym_LBRACK]), (ACTIONS 2001, 1, [anon_sym_LPAREN]), (ACTIONS 2009, 1,
       [anon_sym_BANG]), (ACTIONS 2011, 1, [anon_sym_DOT]), (ACTIONS 2013, 1,
       [anon_sym_QMARK_DOT]), (ACTIONS 2114, 1, [anon_sym_LT]), (ACTIONS 2135, 1,
       [anon_sym_QMARK]), (STATE 552, 1, [sym_index_selector]), (STATE 576, 1,
       [sym__assignable_selector]), (STATE 663, 1, [aux_sym__assignable_selector_part_repeat1]),
       (STATE 869, 1, [sym_type_arguments]), (STATE 964, 1, [sym_selector]), (STATE 992, 1,
       [sym_arguments]), (STATE 567, 2, [sym_unconditional_assignable_selector,
       sym_conditional_assignable_selector]), (STATE 682, 2, [sym_comment,
       sym_documentation_comment]), (STATE 995, 2, [sym__exclamation_operator,
       sym_argument_part]), (ACTIONS 2117, 5, [anon_sym_GT, anon_sym_PIPE, anon_sym_AMP,
       anon_sym_GT_GT, anon_sym_SLASH]), (ACTIONS 2103, 26, [anon_sym_RBRACE, anon_sym_COMMA,
       anon_sym_RBRACK, anon_sym_COLON, anon_sym_RPAREN, anon_sym_QMARK_QMARK,
       sym_equality_operator, anon_sym_LT_EQ, anon_sym_GT_EQ, anon_sym_CARET, anon_sym_LT_LT,
       anon_sym_GT_GT_GT, sym__additive_operator, anon_sym_STAR, anon_sym_PERCENT,
       anon_sym_TILDE_SLASH, anon_sym_is, anon_sym_as, anon_sym_DOT_DOT, anon_sym_QMARK_DOT_DOT,
       anon_sym_SEMI, anon_sym_EQ_GT, anon_sym_case, anon_sym_else, anon_sym_AMP_AMP,
       anon_sym_PIPE_PIPE])])]"

lemma small_run_128: "small_run 681 18468 ts_small_parse_table_128 683 18656"
  by (simp add: small_simps ts_small_parse_table_128_def)

definition ts_small_parse_table_129 :: "small_group list" where
  "ts_small_parse_table_129 = [
     (18656, 40, [(ACTIONS 3, 1, [anon_sym_SLASH_SLASH]), (ACTIONS 5, 1,
       [anon_sym_SLASH_STAR]), (ACTIONS 7, 1, [anon_sym_SLASH_SLASH_SLASH]), (ACTIONS 9, 1,
       [sym__block_comment]), (ACTIONS 11, 1, [sym__documentation_block_comment]), (ACTIONS 1273,
       1, [anon_sym_GT_GT]), (ACTIONS 1275, 1, [sym__additive_operator]), (ACTIONS 1279, 1,
       [anon_sym_is]), (ACTIONS 1281, 1, [anon_sym_as]), (ACTIONS 1286, 1, [anon_sym_AMP_AMP]),
       (ACTIONS 1288, 1, [anon_sym_PIPE_PIPE]), (ACTIONS 2064, 1, [anon_sym_QMARK_QMARK]),
       (ACTIONS 2066, 1, [anon_sym_QMARK]), (ACTIONS 2068, 1, [sym_equality_operator]), (ACTIONS
       2070, 1, [anon_sym_PIPE]), (ACTIONS 2072, 1, [anon_sym_CARET]), (ACTIONS 2074, 1,
       [anon_sym_AMP]), (STATE 320, 1, [sym_relational_operator]), (STATE 327, 1,
       [sym_shift_operator]), (STATE 328, 1, [sym_additive_operator]), (STATE 330, 1,
       [sym_logical_and_operator]), (STATE 332, 1, [sym_logical_or_operator]), (STATE 1334, 1,
       [aux_sym_shift_expression_repeat1]), (STATE 1386, 1,
       [aux_sym_additive_expression_repeat1]), (STATE 1392, 1,
       [aux_sym_logical_and_expression_repeat1]), (STATE 1393, 1,
       [aux_sym_logical_or_expression_repeat1]), (STATE 1397, 1, [sym__shift_operator]), (STATE
       1398, 1, [aux_sym__if_null_expression]), (STATE 1405, 1,
       [aux_sym_bitwise_or_expression_repeat1]), (STATE 1408, 1,
       [aux_sym_bitwise_xor_expression_repeat1]), (STATE 1409, 1,
       [aux_sym_bitwise_and_expression_repeat1]), (STATE 1453, 1, [sym_type_cast]), (STATE 1469,
       1, [sym_type_test]), (STATE 2096, 1, [sym_as_operator]), (STATE 2097, 1,
       [sym_is_operator]), (ACTIONS 400, 2, [anon_sym_LT, anon_sym_GT]), (ACTIONS 402, 2,
       [anon_sym_LT_EQ, anon_sym_GT_EQ]), (ACTIONS 1271, 2, [anon_sym_LT_LT, anon_sym_GT_GT_GT]),
       (STATE 683, 2, [sym_comment, sym_documentation_comment]), (ACTIONS 1410, 11,
       [anon_sym_RBRACE, anon_sym_COMMA, anon_sym_RBRACK, anon_sym_COLON, anon_sym_RPAREN,
       anon_sym_DOT_DOT, anon_sym_QMARK_DOT_DOT, anon_sym_SEMI, anon_sym_EQ_GT, anon_sym_case,
       anon_sym_else])])]"

lemma small_run_129: "small_run 683 18656 ts_small_parse_table_129 684 18791"
  by (simp add: small_simps ts_small_parse_table_129_def)

definition ts_small_parse_table_130 :: "small_group list" where
  "ts_small_parse_table_130 = [
     (18791, 24, [(ACTIONS 3, 1, [anon_sym_SLASH_SLASH]), (ACTIONS 5, 1,
       [anon_sym_SLASH_STAR]), (ACTIONS 7, 1, [anon_sym_SLASH_SLASH_SLASH]), (ACTIONS 9, 1,
       [sym__block_comment]), (ACTIONS 11, 1, [sym__documentation_block_comment]), (ACTIONS 2158,
       1, [anon_sym_LBRACK]), (ACTIONS 2160, 1, [anon_sym_LPAREN]), (ACTIONS 2162, 1,
       [anon_sym_QMARK]), (ACTIONS 2165, 1, [anon_sym_LT]), (ACTIONS 2168, 1, [anon_sym_BANG]),
       (ACTIONS 2170, 1, [anon_sym_DOT]), (ACTIONS 2172, 1, [anon_sym_QMARK_DOT]), (STATE 708, 1,
       [aux_sym__assignable_selector_part_repeat1]), (STATE 1030, 1, [sym__assignable_selector]),
       (STATE 1034, 1, [sym_index_selector]), (STATE 1078, 1, [sym_type_arguments]), (STATE 1104,
       1, [sym_selector]), (STATE 1158, 1, [sym_arguments]), (STATE 1990, 1,
       [sym__assignable_selector_part]), (STATE 684, 2, [sym_comment,
       sym_documentation_comment]), (STATE 1036, 2, [sym_unconditional_assignable_selector,
       sym_conditional_assignable_selector]), (STATE 1105, 2, [sym__exclamation_operator,
       sym_argument_part]), (ACTIONS 2031, 7, [anon_sym_GT, anon_sym_PIPE, anon_sym_AMP,
       anon_sym_GT_GT, anon_sym_SLASH, anon_sym_as, anon_sym_async]), (ACTIONS 2017, 22,
       [anon_sym_LBRACE, anon_sym_COMMA, anon_sym_QMARK_QMARK, sym_equality_operator,
       anon_sym_LT_EQ, anon_sym_GT_EQ, anon_sym_CARET, anon_sym_LT_LT, anon_sym_GT_GT_GT,
       sym__additive_operator, anon_sym_STAR, anon_sym_PERCENT, anon_sym_TILDE_SLASH,
       anon_sym_is, anon_sym_DOT_DOT, anon_sym_QMARK_DOT_DOT, anon_sym_SEMI, anon_sym_EQ_GT,
       anon_sym_async_STAR, anon_sym_sync_STAR, anon_sym_AMP_AMP, anon_sym_PIPE_PIPE])])]"

lemma small_run_130: "small_run 684 18791 ts_small_parse_table_130 685 18894"
  by (simp add: small_simps ts_small_parse_table_130_def)

definition ts_small_parse_table_131 :: "small_group list" where
  "ts_small_parse_table_131 = [
     (18894, 50, [(ACTIONS 3, 1, [anon_sym_SLASH_SLASH]), (ACTIONS 5, 1,
       [anon_sym_SLASH_STAR]), (ACTIONS 7, 1, [anon_sym_SLASH_SLASH_SLASH]), (ACTIONS 9, 1,
       [sym__block_comment]), (ACTIONS 11, 1, [sym__documentation_block_comment]), (ACTIONS 17,
       1, [anon_sym_LPAREN]), (ACTIONS 33, 1, [sym_void_type]), (ACTIONS 35, 1, [anon_sym_var]),
       (ACTIONS 45, 1, [anon_sym_Function]), (ACTIONS 47, 1, [anon_sym_get]), (ACTIONS 61, 1,
       [anon_sym_set]), (ACTIONS 67, 1, [anon_sym_late]), (ACTIONS 69, 1, [anon_sym_external]),
       (ACTIONS 145, 1, [anon_sym_final]), (ACTIONS 153, 1, [anon_sym_covariant]), (ACTIONS 1703,
       1, [sym_identifier]), (ACTIONS 1707, 1, [anon_sym_factory]), (ACTIONS 1709, 1,
       [anon_sym_operator]), (ACTIONS 1711, 1, [anon_sym_static]), (ACTIONS 1713, 1,
       [sym_const_builtin]), (STATE 1463, 1, [sym__function_builtin_identifier]), (STATE 1530, 1,
       [sym__type_name]), (STATE 1538, 1, [sym__static]), (STATE 1542, 1, [sym__operator]),
       (STATE 1605, 1, [aux_sym__function_type_tails]), (STATE 1668, 1, [sym__external]), (STATE
       1704, 1, [sym__function_type_tail]), (STATE 1796, 1, [sym__type_not_function]), (STATE
       1797, 1, [sym__external_builtin]), (STATE 1805, 1, [sym_record_type]), (STATE 1848, 1,
       [sym_function_type]), (STATE 1894, 1, [sym__external_and_static]), (STATE 1896, 1,
       [sym__type_not_void_not_function]), (STATE 1914, 1, [sym__late_builtin]), (STATE 1946, 1,
       [sym__covariant]), (STATE 1976, 1, [sym_inferred_type]), (STATE 1983, 1,
       [sym_final_builtin]), (STATE 2187, 1, [sym_constructor_signature]), (STATE 2377, 1,
       [sym__set]), (STATE 2403, 1, [sym_method_signature]), (STATE 2411, 1, [sym__get]), (STATE
       2418, 1, [sym_factory_constructor_signature]), (STATE 2437, 1, [sym__type]), (STATE 2610,
       1, [sym_constant_constructor_signature]), (STATE 2934, 1, [sym__var_or_type]), (STATE
       3037, 1, [sym_declaration]), (STATE 3523, 1, [sym__factory]), (STATE 3528, 1,
       [sym_redirecting_factory_constructor_signature]), (STATE 685, 2, [sym_comment,
       sym_documentation_comment]), (STATE 2451, 4, [sym_getter_signature, sym_setter_signature,
       sym_operator_signature, sym_function_signature])])]"

lemma small_run_131: "small_run 685 18894 ts_small_parse_table_131 686 19049"
  by (simp add: small_simps ts_small_parse_table_131_def)

definition ts_small_parse_table_132 :: "small_group list" where
  "ts_small_parse_table_132 = [
     (19049, 40, [(ACTIONS 3, 1, [anon_sym_SLASH_SLASH]), (ACTIONS 5, 1,
       [anon_sym_SLASH_STAR]), (ACTIONS 7, 1, [anon_sym_SLASH_SLASH_SLASH]), (ACTIONS 9, 1,
       [sym__block_comment]), (ACTIONS 11, 1, [sym__documentation_block_comment]), (ACTIONS 1273,
       1, [anon_sym_GT_GT]), (ACTIONS 1275, 1, [sym__additive_operator]), (ACTIONS 1279, 1,
       [anon_sym_is]), (ACTIONS 1281, 1, [anon_sym_as]), (ACTIONS 1286, 1, [anon_sym_AMP_AMP]),
       (ACTIONS 1288, 1, [anon_sym_PIPE_PIPE]), (ACTIONS 2064, 1, [anon_sym_QMARK_QMARK]),
       (ACTIONS 2066, 1, [anon_sym_QMARK]), (ACTIONS 2068, 1, [sym_equality_operator]), (ACTIONS
       2070, 1, [anon_sym_PIPE]), (ACTIONS 2072, 1, [anon_sym_CARET]), (ACTIONS 2074, 1,
       [anon_sym_AMP]), (STATE 320, 1, [sym_relational_operator]), (STATE 327, 1,
       [sym_shift_operator]), (STATE 328, 1, [sym_additive_operator]), (STATE 330, 1,
       [sym_logical_and_operator]), (STATE 332, 1, [sym_logical_or_operator]), (STATE 1334, 1,
       [aux_sym_shift_expression_repeat1]), (STATE 1386, 1,
       [aux_sym_additive_expression_repeat1]), (STATE 1392, 1,
       [aux_sym_logical_and_expression_repeat1]), (STATE 1393, 1,
       [aux_sym_logical_or_expression_repeat1]), (STATE 1397, 1, [sym__shift_operator]), (STATE
       1398, 1, [aux_sym__if_null_expression]), (STATE 1405, 1,
       [aux_sym_bitwise_or_expression_repeat1]), (STATE 1408, 1,
       [aux_sym_bitwise_xor_expression_repeat1]), (STATE 1409, 1,
       [aux_sym_bitwise_and_expression_repeat1]), (STATE 1453, 1, [sym_type_cast]), (STATE 1469,
       1, [sym_type_test]), (STATE 2096, 1, [sym_as_operator]), (STATE 2097, 1,
       [sym_is_operator]), (ACTIONS 400, 2, [anon_sym_LT, anon_sym_GT]), (ACTIONS 402, 2,
       [anon_sym_LT_EQ, anon_sym_GT_EQ]), (ACTIONS 1271, 2, [anon_sym_LT_LT, anon_sym_GT_GT_GT]),
       (STATE 686, 2, [sym_comment, sym_documentation_comment]), (ACTIONS 1406, 11,
       [anon_sym_RBRACE, anon_sym_COMMA, anon_sym_RBRACK, anon_sym_COLON, anon_sym_RPAREN,
       anon_sym_DOT_DOT, anon_sym_QMARK_DOT_DOT, anon_sym_SEMI, anon_sym_EQ_GT, anon_sym_case,
       anon_sym_else])])]"

lemma small_run_132: "small_run 686 19049 ts_small_parse_table_132 687 19184"
  by (simp add: small_simps ts_small_parse_table_132_def)

definition ts_small_parse_table_133 :: "small_group list" where
  "ts_small_parse_table_133 = [
     (19184, 50, [(ACTIONS 3, 1, [anon_sym_SLASH_SLASH]), (ACTIONS 5, 1,
       [anon_sym_SLASH_STAR]), (ACTIONS 7, 1, [anon_sym_SLASH_SLASH_SLASH]), (ACTIONS 9, 1,
       [sym__block_comment]), (ACTIONS 11, 1, [sym__documentation_block_comment]), (ACTIONS 15,
       1, [sym_identifier]), (ACTIONS 17, 1, [anon_sym_LPAREN]), (ACTIONS 25, 1,
       [anon_sym_final]), (ACTIONS 27, 1, [anon_sym_inline]), (ACTIONS 29, 1, [anon_sym_class]),
       (ACTIONS 33, 1, [sym_void_type]), (ACTIONS 35, 1, [anon_sym_var]), (ACTIONS 45, 1,
       [anon_sym_Function]), (ACTIONS 47, 1, [anon_sym_get]), (ACTIONS 51, 1,
       [anon_sym_interface]), (ACTIONS 53, 1, [anon_sym_base]), (ACTIONS 55, 1,
       [anon_sym_abstract]), (ACTIONS 57, 1, [anon_sym_sealed]), (ACTIONS 59, 1,
       [anon_sym_mixin]), (ACTIONS 61, 1, [anon_sym_set]), (ACTIONS 63, 1, [anon_sym_typedef]),
       (ACTIONS 67, 1, [anon_sym_late]), (ACTIONS 69, 1, [anon_sym_external]), (ACTIONS 1629, 1,
       [anon_sym_enum]), (ACTIONS 1631, 1, [anon_sym_extension]), (ACTIONS 1637, 1,
       [sym_const_builtin]), (STATE 1463, 1, [sym__function_builtin_identifier]), (STATE 1530, 1,
       [sym__type_name]), (STATE 1605, 1, [aux_sym__function_type_tails]), (STATE 1704, 1,
       [sym__function_type_tail]), (STATE 1796, 1, [sym__type_not_function]), (STATE 1805, 1,
       [sym_record_type]), (STATE 1848, 1, [sym_function_type]), (STATE 1880, 1,
       [sym__external_builtin]), (STATE 1896, 1, [sym__type_not_void_not_function]), (STATE 1934,
       1, [sym__late_builtin]), (STATE 1971, 1, [sym_final_builtin]), (STATE 2073, 1,
       [sym__typedef]), (STATE 2228, 1, [sym_abstract]), (STATE 2377, 1, [sym__set]), (STATE
       2411, 1, [sym__get]), (STATE 2419, 1, [sym__type]), (STATE 2970, 1, [sym_inferred_type]),
       (STATE 3001, 1, [sym_base]), (STATE 3026, 1, [sym_mixin]), (STATE 3032, 1,
       [sym__class_modifiers]), (STATE 3560, 1, [sym__mixin_class_modifiers]), (STATE 687, 2,
       [sym_comment, sym_documentation_comment]), (STATE 3539, 2, [sym_interface, sym_sealed]),
       (STATE 2195, 3, [sym_getter_signature, sym_setter_signature, sym_function_signature])])]"

lemma small_run_133: "small_run 687 19184 ts_small_parse_table_133 688 19339"
  by (simp add: small_simps ts_small_parse_table_133_def)

definition ts_small_parse_table_134 :: "small_group list" where
  "ts_small_parse_table_134 = [
     (19339, 40, [(ACTIONS 3, 1, [anon_sym_SLASH_SLASH]), (ACTIONS 5, 1,
       [anon_sym_SLASH_STAR]), (ACTIONS 7, 1, [anon_sym_SLASH_SLASH_SLASH]), (ACTIONS 9, 1,
       [sym__block_comment]), (ACTIONS 11, 1, [sym__documentation_block_comment]), (ACTIONS 1273,
       1, [anon_sym_GT_GT]), (ACTIONS 1275, 1, [sym__additive_operator]), (ACTIONS 1279, 1,
       [anon_sym_is]), (ACTIONS 1281, 1, [anon_sym_as]), (ACTIONS 1286, 1, [anon_sym_AMP_AMP]),
       (ACTIONS 1288, 1, [anon_sym_PIPE_PIPE]), (ACTIONS 2064, 1, [anon_sym_QMARK_QMARK]),
       (ACTIONS 2066, 1, [anon_sym_QMARK]), (ACTIONS 2068, 1, [sym_equality_operator]), (ACTIONS
       2070, 1, [anon_sym_PIPE]), (ACTIONS 2072, 1, [anon_sym_CARET]), (ACTIONS 2074, 1,
       [anon_sym_AMP]), (STATE 320, 1, [sym_relational_operator]), (STATE 327, 1,
       [sym_shift_operator]), (STATE 328, 1, [sym_additive_operator]), (STATE 330, 1,
       [sym_logical_and_operator]), (STATE 332, 1, [sym_logical_or_operator]), (STATE 1334, 1,
       [aux_sym_shift_expression_repeat1]), (STATE 1386, 1,
       [aux_sym_additive_expression_repeat1]), (STATE 1392, 1,
       [aux_sym_logical_and_expression_repeat1]), (STATE 1393, 1,
       [aux_sym_logical_or_expression_repeat1]), (STATE 1397, 1, [sym__shift_operator]), (STATE
       1398, 1, [aux_sym__if_null_expression]), (STATE 1405, 1,
       [aux_sym_bitwise_or_expression_repeat1]), (STATE 1408, 1,
       [aux_sym_bitwise_xor_expression_repeat1]), (STATE 1409, 1,
       [aux_sym_bitwise_and_expression_repeat1]), (STATE 1453, 1, [sym_type_cast]), (STATE 1469,
       1, [sym_type_test]), (STATE 2096, 1, [sym_as_operator]), (STATE 2097, 1,
       [sym_is_operator]), (ACTIONS 400, 2, [anon_sym_LT, anon_sym_GT]), (ACTIONS 402, 2,
       [anon_sym_LT_EQ, anon_sym_GT_EQ]), (ACTIONS 1271, 2, [anon_sym_LT_LT, anon_sym_GT_GT_GT]),
       (STATE 688, 2, [sym_comment, sym_documentation_comment]), (ACTIONS 1395, 11,
       [anon_sym_RBRACE, anon_sym_COMMA, anon_sym_RBRACK, anon_sym_COLON, anon_sym_RPAREN,
       anon_sym_DOT_DOT, anon_sym_QMARK_DOT_DOT, anon_sym_SEMI, anon_sym_EQ_GT, anon_sym_case,
       anon_sym_else])])]"

lemma small_run_134: "small_run 688 19339 ts_small_parse_table_134 689 19474"
  by (simp add: small_simps ts_small_parse_table_134_def)

definition ts_small_parse_table_135 :: "small_group list" where
  "ts_small_parse_table_135 = [
     (19474, 40, [(ACTIONS 3, 1, [anon_sym_SLASH_SLASH]), (ACTIONS 5, 1,
       [anon_sym_SLASH_STAR]), (ACTIONS 7, 1, [anon_sym_SLASH_SLASH_SLASH]), (ACTIONS 9, 1,
       [sym__block_comment]), (ACTIONS 11, 1, [sym__documentation_block_comment]), (ACTIONS 1273,
       1, [anon_sym_GT_GT]), (ACTIONS 1275, 1, [sym__additive_operator]), (ACTIONS 1279, 1,
       [anon_sym_is]), (ACTIONS 1281, 1, [anon_sym_as]), (ACTIONS 1286, 1, [anon_sym_AMP_AMP]),
       (ACTIONS 1288, 1, [anon_sym_PIPE_PIPE]), (ACTIONS 2064, 1, [anon_sym_QMARK_QMARK]),
       (ACTIONS 2066, 1, [anon_sym_QMARK]), (ACTIONS 2068, 1, [sym_equality_operator]), (ACTIONS
       2070, 1, [anon_sym_PIPE]), (ACTIONS 2072, 1, [anon_sym_CARET]), (ACTIONS 2074, 1,
       [anon_sym_AMP]), (STATE 320, 1, [sym_relational_operator]), (STATE 327, 1,
       [sym_shift_operator]), (STATE 328, 1, [sym_additive_operator]), (STATE 330, 1,
       [sym_logical_and_operator]), (STATE 332, 1, [sym_logical_or_operator]), (STATE 1334, 1,
       [aux_sym_shift_expression_repeat1]), (STATE 1386, 1,
       [aux_sym_additive_expression_repeat1]), (STATE 1392, 1,
       [aux_sym_logical_and_expression_repeat1]), (STATE 1393, 1,
       [aux_sym_logical_or_expression_repeat1]), (STATE 1397, 1, [sym__shift_operator]), (STATE
       1398, 1, [aux_sym__if_null_expression]), (STATE 1405, 1,
       [aux_sym_bitwise_or_expression_repeat1]), (STATE 1408, 1,
       [aux_sym_bitwise_xor_expression_repeat1]), (STATE 1409, 1,
       [aux_sym_bitwise_and_expression_repeat1]), (STATE 1453, 1, [sym_type_cast]), (STATE 1469,
       1, [sym_type_test]), (STATE 2096, 1, [sym_as_operator]), (STATE 2097, 1,
       [sym_is_operator]), (ACTIONS 400, 2, [anon_sym_LT, anon_sym_GT]), (ACTIONS 402, 2,
       [anon_sym_LT_EQ, anon_sym_GT_EQ]), (ACTIONS 1271, 2, [anon_sym_LT_LT, anon_sym_GT_GT_GT]),
       (STATE 689, 2, [sym_comment, sym_documentation_comment]), (ACTIONS 1381, 11,
       [anon_sym_RBRACE, anon_sym_COMMA, anon_sym_RBRACK, anon_sym_COLON, anon_sym_RPAREN,
       anon_sym_DOT_DOT, anon_sym_QMARK_DOT_DOT, anon_sym_SEMI, anon_sym_EQ_GT, anon_sym_case,
       anon_sym_else])])]"

lemma small_run_135: "small_run 689 19474 ts_small_parse_table_135 690 19609"
  by (simp add: small_simps ts_small_parse_table_135_def)

definition ts_small_parse_table_136 :: "small_group list" where
  "ts_small_parse_table_136 = [
     (19609, 24, [(ACTIONS 3, 1, [anon_sym_SLASH_SLASH]), (ACTIONS 5, 1,
       [anon_sym_SLASH_STAR]), (ACTIONS 7, 1, [anon_sym_SLASH_SLASH_SLASH]), (ACTIONS 9, 1,
       [sym__block_comment]), (ACTIONS 11, 1, [sym__documentation_block_comment]), (ACTIONS 2165,
       1, [anon_sym_LT]), (ACTIONS 2174, 1, [anon_sym_LBRACK]), (ACTIONS 2177, 1,
       [anon_sym_LPAREN]), (ACTIONS 2180, 1, [anon_sym_QMARK]), (ACTIONS 2183, 1,
       [anon_sym_BANG]), (ACTIONS 2186, 1, [anon_sym_DOT]), (ACTIONS 2189, 1,
       [anon_sym_QMARK_DOT]), (STATE 607, 1, [sym_index_selector]), (STATE 623, 1,
       [sym__assignable_selector]), (STATE 705, 1, [aux_sym__assignable_selector_part_repeat1]),
       (STATE 1078, 1, [sym_type_arguments]), (STATE 1104, 1, [sym_selector]), (STATE 1158, 1,
       [sym_arguments]), (STATE 1990, 1, [sym__assignable_selector_part]), (STATE 622, 2,
       [sym_unconditional_assignable_selector, sym_conditional_assignable_selector]), (STATE 690,
       2, [sym_comment, sym_documentation_comment]), (STATE 1105, 2, [sym__exclamation_operator,
       sym_argument_part]), (ACTIONS 2031, 7, [anon_sym_GT, anon_sym_PIPE, anon_sym_AMP,
       anon_sym_GT_GT, anon_sym_SLASH, anon_sym_as, anon_sym_async]), (ACTIONS 2017, 22,
       [anon_sym_LBRACE, anon_sym_COMMA, anon_sym_QMARK_QMARK, sym_equality_operator,
       anon_sym_LT_EQ, anon_sym_GT_EQ, anon_sym_CARET, anon_sym_LT_LT, anon_sym_GT_GT_GT,
       sym__additive_operator, anon_sym_STAR, anon_sym_PERCENT, anon_sym_TILDE_SLASH,
       anon_sym_is, anon_sym_DOT_DOT, anon_sym_QMARK_DOT_DOT, anon_sym_SEMI, anon_sym_EQ_GT,
       anon_sym_async_STAR, anon_sym_sync_STAR, anon_sym_AMP_AMP, anon_sym_PIPE_PIPE])])]"

lemma small_run_136: "small_run 690 19609 ts_small_parse_table_136 691 19712"
  by (simp add: small_simps ts_small_parse_table_136_def)

definition ts_small_parse_table_137 :: "small_group list" where
  "ts_small_parse_table_137 = [
     (19712, 24, [(ACTIONS 3, 1, [anon_sym_SLASH_SLASH]), (ACTIONS 5, 1,
       [anon_sym_SLASH_STAR]), (ACTIONS 7, 1, [anon_sym_SLASH_SLASH_SLASH]), (ACTIONS 9, 1,
       [sym__block_comment]), (ACTIONS 11, 1, [sym__documentation_block_comment]), (ACTIONS 2158,
       1, [anon_sym_LBRACK]), (ACTIONS 2160, 1, [anon_sym_LPAREN]), (ACTIONS 2168, 1,
       [anon_sym_BANG]), (ACTIONS 2170, 1, [anon_sym_DOT]), (ACTIONS 2172, 1,
       [anon_sym_QMARK_DOT]), (ACTIONS 2192, 1, [anon_sym_QMARK]), (ACTIONS 2194, 1,
       [anon_sym_LT]), (STATE 707, 1, [aux_sym__assignable_selector_part_repeat1]), (STATE 1030,
       1, [sym__assignable_selector]), (STATE 1034, 1, [sym_index_selector]), (STATE 1078, 1,
       [sym_type_arguments]), (STATE 1104, 1, [sym_selector]), (STATE 1158, 1, [sym_arguments]),
       (STATE 1990, 1, [sym__assignable_selector_part]), (STATE 691, 2, [sym_comment,
       sym_documentation_comment]), (STATE 1036, 2, [sym_unconditional_assignable_selector,
       sym_conditional_assignable_selector]), (STATE 1105, 2, [sym__exclamation_operator,
       sym_argument_part]), (ACTIONS 2007, 7, [anon_sym_GT, anon_sym_PIPE, anon_sym_AMP,
       anon_sym_GT_GT, anon_sym_SLASH, anon_sym_as, anon_sym_async]), (ACTIONS 1997, 22,
       [anon_sym_LBRACE, anon_sym_COMMA, anon_sym_QMARK_QMARK, sym_equality_operator,
       anon_sym_LT_EQ, anon_sym_GT_EQ, anon_sym_CARET, anon_sym_LT_LT, anon_sym_GT_GT_GT,
       sym__additive_operator, anon_sym_STAR, anon_sym_PERCENT, anon_sym_TILDE_SLASH,
       anon_sym_is, anon_sym_DOT_DOT, anon_sym_QMARK_DOT_DOT, anon_sym_SEMI, anon_sym_EQ_GT,
       anon_sym_async_STAR, anon_sym_sync_STAR, anon_sym_AMP_AMP, anon_sym_PIPE_PIPE])])]"

lemma small_run_137: "small_run 691 19712 ts_small_parse_table_137 692 19815"
  by (simp add: small_simps ts_small_parse_table_137_def)

definition ts_small_parse_table_138 :: "small_group list" where
  "ts_small_parse_table_138 = [
     (19815, 40, [(ACTIONS 3, 1, [anon_sym_SLASH_SLASH]), (ACTIONS 5, 1,
       [anon_sym_SLASH_STAR]), (ACTIONS 7, 1, [anon_sym_SLASH_SLASH_SLASH]), (ACTIONS 9, 1,
       [sym__block_comment]), (ACTIONS 11, 1, [sym__documentation_block_comment]), (ACTIONS 1273,
       1, [anon_sym_GT_GT]), (ACTIONS 1275, 1, [sym__additive_operator]), (ACTIONS 1279, 1,
       [anon_sym_is]), (ACTIONS 1281, 1, [anon_sym_as]), (ACTIONS 1286, 1, [anon_sym_AMP_AMP]),
       (ACTIONS 1288, 1, [anon_sym_PIPE_PIPE]), (ACTIONS 2064, 1, [anon_sym_QMARK_QMARK]),
       (ACTIONS 2066, 1, [anon_sym_QMARK]), (ACTIONS 2068, 1, [sym_equality_operator]), (ACTIONS
       2070, 1, [anon_sym_PIPE]), (ACTIONS 2072, 1, [anon_sym_CARET]), (ACTIONS 2074, 1,
       [anon_sym_AMP]), (STATE 320, 1, [sym_relational_operator]), (STATE 327, 1,
       [sym_shift_operator]), (STATE 328, 1, [sym_additive_operator]), (STATE 330, 1,
       [sym_logical_and_operator]), (STATE 332, 1, [sym_logical_or_operator]), (STATE 1334, 1,
       [aux_sym_shift_expression_repeat1]), (STATE 1386, 1,
       [aux_sym_additive_expression_repeat1]), (STATE 1392, 1,
       [aux_sym_logical_and_expression_repeat1]), (STATE 1393, 1,
       [aux_sym_logical_or_expression_repeat1]), (STATE 1397, 1, [sym__shift_operator]), (STATE
       1398, 1, [aux_sym__if_null_expression]), (STATE 1405, 1,
       [aux_sym_bitwise_or_expression_repeat1]), (STATE 1408, 1,
       [aux_sym_bitwise_xor_expression_repeat1]), (STATE 1409, 1,
       [aux_sym_bitwise_and_expression_repeat1]), (STATE 1453, 1, [sym_type_cast]), (STATE 1469,
       1, [sym_type_test]), (STATE 2096, 1, [sym_as_operator]), (STATE 2097, 1,
       [sym_is_operator]), (ACTIONS 400, 2, [anon_sym_LT, anon_sym_GT]), (ACTIONS 402, 2,
       [anon_sym_LT_EQ, anon_sym_GT_EQ]), (ACTIONS 1271, 2, [anon_sym_LT_LT, anon_sym_GT_GT_GT]),
       (STATE 692, 2, [sym_comment, sym_documentation_comment]), (ACTIONS 1353, 11,
       [anon_sym_RBRACE, anon_sym_COMMA, anon_sym_RBRACK, anon_sym_COLON, anon_sym_RPAREN,
       anon_sym_DOT_DOT, anon_sym_QMARK_DOT_DOT, anon_sym_SEMI, anon_sym_EQ_GT, anon_sym_case,
       anon_sym_else])])]"

lemma small_run_138: "small_run 692 19815 ts_small_parse_table_138 693 19950"
  by (simp add: small_simps ts_small_parse_table_138_def)

definition ts_small_parse_table_139 :: "small_group list" where
  "ts_small_parse_table_139 = [
     (19950, 44, [(ACTIONS 3, 1, [anon_sym_SLASH_SLASH]), (ACTIONS 5, 1,
       [anon_sym_SLASH_STAR]), (ACTIONS 7, 1, [anon_sym_SLASH_SLASH_SLASH]), (ACTIONS 9, 1,
       [sym__block_comment]), (ACTIONS 11, 1, [sym__documentation_block_comment]), (ACTIONS 1273,
       1, [anon_sym_GT_GT]), (ACTIONS 1275, 1, [sym__additive_operator]), (ACTIONS 1279, 1,
       [anon_sym_is]), (ACTIONS 1286, 1, [anon_sym_AMP_AMP]), (ACTIONS 1288, 1,
       [anon_sym_PIPE_PIPE]), (ACTIONS 1448, 1, [anon_sym_as]), (ACTIONS 2198, 1,
       [anon_sym_QMARK_QMARK]), (ACTIONS 2200, 1, [anon_sym_QMARK]), (ACTIONS 2202, 1,
       [sym_equality_operator]), (ACTIONS 2204, 1, [anon_sym_PIPE]), (ACTIONS 2206, 1,
       [anon_sym_CARET]), (ACTIONS 2208, 1, [anon_sym_AMP]), (ACTIONS 2212, 1, [anon_sym_async]),
       (STATE 352, 1, [sym_logical_or_operator]), (STATE 354, 1, [sym_logical_and_operator]),
       (STATE 355, 1, [sym_additive_operator]), (STATE 363, 1, [sym_relational_operator]), (STATE
       367, 1, [sym_shift_operator]), (STATE 1397, 1, [sym__shift_operator]), (STATE 1418, 1,
       [aux_sym_shift_expression_repeat1]), (STATE 1456, 1,
       [aux_sym_logical_or_expression_repeat1]), (STATE 1457, 1,
       [aux_sym_logical_and_expression_repeat1]), (STATE 1461, 1,
       [aux_sym_additive_expression_repeat1]), (STATE 1513, 1,
       [aux_sym_bitwise_or_expression_repeat1]), (STATE 1514, 1,
       [aux_sym_bitwise_xor_expression_repeat1]), (STATE 1516, 1,
       [aux_sym_bitwise_and_expression_repeat1]), (STATE 1529, 1, [aux_sym__if_null_expression]),
       (STATE 1560, 1, [sym_type_test]), (STATE 1563, 1, [sym_type_cast]), (STATE 1962, 1,
       [sym_cascade_section]), (STATE 2086, 1, [sym_as_operator]), (STATE 2087, 1,
       [sym_is_operator]), (STATE 2138, 1, [aux_sym__expression_repeat1]), (ACTIONS 400, 2,
       [anon_sym_LT, anon_sym_GT]), (ACTIONS 402, 2, [anon_sym_LT_EQ, anon_sym_GT_EQ]), (ACTIONS
       1271, 2, [anon_sym_LT_LT, anon_sym_GT_GT_GT]), (ACTIONS 2210, 2, [anon_sym_DOT_DOT,
       anon_sym_QMARK_DOT_DOT]), (STATE 693, 2, [sym_comment, sym_documentation_comment]),
       (ACTIONS 2196, 6, [anon_sym_LBRACE, anon_sym_COMMA, anon_sym_SEMI, anon_sym_EQ_GT,
       anon_sym_async_STAR, anon_sym_sync_STAR])])]"

lemma small_run_139: "small_run 693 19950 ts_small_parse_table_139 694 20093"
  by (simp add: small_simps ts_small_parse_table_139_def)

definition ts_small_parse_table_140 :: "small_group list" where
  "ts_small_parse_table_140 = [
     (20093, 40, [(ACTIONS 3, 1, [anon_sym_SLASH_SLASH]), (ACTIONS 5, 1,
       [anon_sym_SLASH_STAR]), (ACTIONS 7, 1, [anon_sym_SLASH_SLASH_SLASH]), (ACTIONS 9, 1,
       [sym__block_comment]), (ACTIONS 11, 1, [sym__documentation_block_comment]), (ACTIONS 1273,
       1, [anon_sym_GT_GT]), (ACTIONS 1275, 1, [sym__additive_operator]), (ACTIONS 1279, 1,
       [anon_sym_is]), (ACTIONS 1281, 1, [anon_sym_as]), (ACTIONS 1286, 1, [anon_sym_AMP_AMP]),
       (ACTIONS 1288, 1, [anon_sym_PIPE_PIPE]), (ACTIONS 2064, 1, [anon_sym_QMARK_QMARK]),
       (ACTIONS 2066, 1, [anon_sym_QMARK]), (ACTIONS 2068, 1, [sym_equality_operator]), (ACTIONS
       2070, 1, [anon_sym_PIPE]), (ACTIONS 2072, 1, [anon_sym_CARET]), (ACTIONS 2074, 1,
       [anon_sym_AMP]), (STATE 320, 1, [sym_relational_operator]), (STATE 327, 1,
       [sym_shift_operator]), (STATE 328, 1, [sym_additive_operator]), (STATE 330, 1,
       [sym_logical_and_operator]), (STATE 332, 1, [sym_logical_or_operator]), (STATE 1334, 1,
       [aux_sym_shift_expression_repeat1]), (STATE 1386, 1,
       [aux_sym_additive_expression_repeat1]), (STATE 1392, 1,
       [aux_sym_logical_and_expression_repeat1]), (STATE 1393, 1,
       [aux_sym_logical_or_expression_repeat1]), (STATE 1397, 1, [sym__shift_operator]), (STATE
       1398, 1, [aux_sym__if_null_expression]), (STATE 1405, 1,
       [aux_sym_bitwise_or_expression_repeat1]), (STATE 1408, 1,
       [aux_sym_bitwise_xor_expression_repeat1]), (STATE 1409, 1,
       [aux_sym_bitwise_and_expression_repeat1]), (STATE 1453, 1, [sym_type_cast]), (STATE 1469,
       1, [sym_type_test]), (STATE 2096, 1, [sym_as_operator]), (STATE 2097, 1,
       [sym_is_operator]), (ACTIONS 400, 2, [anon_sym_LT, anon_sym_GT]), (ACTIONS 402, 2,
       [anon_sym_LT_EQ, anon_sym_GT_EQ]), (ACTIONS 1271, 2, [anon_sym_LT_LT, anon_sym_GT_GT_GT]),
       (STATE 694, 2, [sym_comment, sym_documentation_comment]), (ACTIONS 1357, 11,
       [anon_sym_RBRACE, anon_sym_COMMA, anon_sym_RBRACK, anon_sym_COLON, anon_sym_RPAREN,
       anon_sym_DOT_DOT, anon_sym_QMARK_DOT_DOT, anon_sym_SEMI, anon_sym_EQ_GT, anon_sym_case,
       anon_sym_else])])]"

lemma small_run_140: "small_run 694 20093 ts_small_parse_table_140 695 20228"
  by (simp add: small_simps ts_small_parse_table_140_def)

definition ts_small_parse_table_141 :: "small_group list" where
  "ts_small_parse_table_141 = [
     (20228, 40, [(ACTIONS 3, 1, [anon_sym_SLASH_SLASH]), (ACTIONS 5, 1,
       [anon_sym_SLASH_STAR]), (ACTIONS 7, 1, [anon_sym_SLASH_SLASH_SLASH]), (ACTIONS 9, 1,
       [sym__block_comment]), (ACTIONS 11, 1, [sym__documentation_block_comment]), (ACTIONS 1273,
       1, [anon_sym_GT_GT]), (ACTIONS 1275, 1, [sym__additive_operator]), (ACTIONS 1279, 1,
       [anon_sym_is]), (ACTIONS 1281, 1, [anon_sym_as]), (ACTIONS 1286, 1, [anon_sym_AMP_AMP]),
       (ACTIONS 1288, 1, [anon_sym_PIPE_PIPE]), (ACTIONS 2064, 1, [anon_sym_QMARK_QMARK]),
       (ACTIONS 2066, 1, [anon_sym_QMARK]), (ACTIONS 2068, 1, [sym_equality_operator]), (ACTIONS
       2070, 1, [anon_sym_PIPE]), (ACTIONS 2072, 1, [anon_sym_CARET]), (ACTIONS 2074, 1,
       [anon_sym_AMP]), (STATE 320, 1, [sym_relational_operator]), (STATE 327, 1,
       [sym_shift_operator]), (STATE 328, 1, [sym_additive_operator]), (STATE 330, 1,
       [sym_logical_and_operator]), (STATE 332, 1, [sym_logical_or_operator]), (STATE 1334, 1,
       [aux_sym_shift_expression_repeat1]), (STATE 1386, 1,
       [aux_sym_additive_expression_repeat1]), (STATE 1392, 1,
       [aux_sym_logical_and_expression_repeat1]), (STATE 1393, 1,
       [aux_sym_logical_or_expression_repeat1]), (STATE 1397, 1, [sym__shift_operator]), (STATE
       1398, 1, [aux_sym__if_null_expression]), (STATE 1405, 1,
       [aux_sym_bitwise_or_expression_repeat1]), (STATE 1408, 1,
       [aux_sym_bitwise_xor_expression_repeat1]), (STATE 1409, 1,
       [aux_sym_bitwise_and_expression_repeat1]), (STATE 1453, 1, [sym_type_cast]), (STATE 1469,
       1, [sym_type_test]), (STATE 2096, 1, [sym_as_operator]), (STATE 2097, 1,
       [sym_is_operator]), (ACTIONS 400, 2, [anon_sym_LT, anon_sym_GT]), (ACTIONS 402, 2,
       [anon_sym_LT_EQ, anon_sym_GT_EQ]), (ACTIONS 1271, 2, [anon_sym_LT_LT, anon_sym_GT_GT_GT]),
       (STATE 695, 2, [sym_comment, sym_documentation_comment]), (ACTIONS 1414, 11,
       [anon_sym_RBRACE, anon_sym_COMMA, anon_sym_RBRACK, anon_sym_COLON, anon_sym_RPAREN,
       anon_sym_DOT_DOT, anon_sym_QMARK_DOT_DOT, anon_sym_SEMI, anon_sym_EQ_GT, anon_sym_case,
       anon_sym_else])])]"

lemma small_run_141: "small_run 695 20228 ts_small_parse_table_141 696 20363"
  by (simp add: small_simps ts_small_parse_table_141_def)

definition ts_small_parse_table_142 :: "small_group list" where
  "ts_small_parse_table_142 = [
     (20363, 50, [(ACTIONS 3, 1, [anon_sym_SLASH_SLASH]), (ACTIONS 5, 1,
       [anon_sym_SLASH_STAR]), (ACTIONS 7, 1, [anon_sym_SLASH_SLASH_SLASH]), (ACTIONS 9, 1,
       [sym__block_comment]), (ACTIONS 11, 1, [sym__documentation_block_comment]), (ACTIONS 17,
       1, [anon_sym_LPAREN]), (ACTIONS 33, 1, [sym_void_type]), (ACTIONS 35, 1, [anon_sym_var]),
       (ACTIONS 45, 1, [anon_sym_Function]), (ACTIONS 47, 1, [anon_sym_get]), (ACTIONS 61, 1,
       [anon_sym_set]), (ACTIONS 67, 1, [anon_sym_late]), (ACTIONS 69, 1, [anon_sym_external]),
       (ACTIONS 145, 1, [anon_sym_final]), (ACTIONS 153, 1, [anon_sym_covariant]), (ACTIONS 1703,
       1, [sym_identifier]), (ACTIONS 1707, 1, [anon_sym_factory]), (ACTIONS 1709, 1,
       [anon_sym_operator]), (ACTIONS 1711, 1, [anon_sym_static]), (ACTIONS 1713, 1,
       [sym_const_builtin]), (STATE 1463, 1, [sym__function_builtin_identifier]), (STATE 1530, 1,
       [sym__type_name]), (STATE 1538, 1, [sym__static]), (STATE 1542, 1, [sym__operator]),
       (STATE 1605, 1, [aux_sym__function_type_tails]), (STATE 1668, 1, [sym__external]), (STATE
       1704, 1, [sym__function_type_tail]), (STATE 1796, 1, [sym__type_not_function]), (STATE
       1797, 1, [sym__external_builtin]), (STATE 1805, 1, [sym_record_type]), (STATE 1848, 1,
       [sym_function_type]), (STATE 1894, 1, [sym__external_and_static]), (STATE 1896, 1,
       [sym__type_not_void_not_function]), (STATE 1914, 1, [sym__late_builtin]), (STATE 1946, 1,
       [sym__covariant]), (STATE 1976, 1, [sym_inferred_type]), (STATE 1983, 1,
       [sym_final_builtin]), (STATE 2187, 1, [sym_constructor_signature]), (STATE 2377, 1,
       [sym__set]), (STATE 2411, 1, [sym__get]), (STATE 2418, 1,
       [sym_factory_constructor_signature]), (STATE 2422, 1, [sym_method_signature]), (STATE
       2437, 1, [sym__type]), (STATE 2610, 1, [sym_constant_constructor_signature]), (STATE 2934,
       1, [sym__var_or_type]), (STATE 3237, 1, [sym_declaration]), (STATE 3523, 1,
       [sym__factory]), (STATE 3528, 1, [sym_redirecting_factory_constructor_signature]), (STATE
       696, 2, [sym_comment, sym_documentation_comment]), (STATE 2451, 4, [sym_getter_signature,
       sym_setter_signature, sym_operator_signature, sym_function_signature])])]"

lemma small_run_142: "small_run 696 20363 ts_small_parse_table_142 697 20518"
  by (simp add: small_simps ts_small_parse_table_142_def)

definition ts_small_parse_table_143 :: "small_group list" where
  "ts_small_parse_table_143 = [
     (20518, 36, [(ACTIONS 3, 1, [anon_sym_SLASH_SLASH]), (ACTIONS 5, 1,
       [anon_sym_SLASH_STAR]), (ACTIONS 7, 1, [anon_sym_SLASH_SLASH_SLASH]), (ACTIONS 9, 1,
       [sym__block_comment]), (ACTIONS 11, 1, [sym__documentation_block_comment]), (ACTIONS 1273,
       1, [anon_sym_GT_GT]), (ACTIONS 1275, 1, [sym__additive_operator]), (ACTIONS 1279, 1,
       [anon_sym_is]), (ACTIONS 1281, 1, [anon_sym_as]), (ACTIONS 1424, 1, [anon_sym_QMARK]),
       (ACTIONS 2070, 1, [anon_sym_PIPE]), (ACTIONS 2072, 1, [anon_sym_CARET]), (ACTIONS 2074, 1,
       [anon_sym_AMP]), (STATE 320, 1, [sym_relational_operator]), (STATE 327, 1,
       [sym_shift_operator]), (STATE 328, 1, [sym_additive_operator]), (STATE 330, 1,
       [sym_logical_and_operator]), (STATE 332, 1, [sym_logical_or_operator]), (STATE 1334, 1,
       [aux_sym_shift_expression_repeat1]), (STATE 1386, 1,
       [aux_sym_additive_expression_repeat1]), (STATE 1392, 1,
       [aux_sym_logical_and_expression_repeat1]), (STATE 1393, 1,
       [aux_sym_logical_or_expression_repeat1]), (STATE 1397, 1, [sym__shift_operator]), (STATE
       1398, 1, [aux_sym__if_null_expression]), (STATE 1405, 1,
       [aux_sym_bitwise_or_expression_repeat1]), (STATE 1408, 1,
       [aux_sym_bitwise_xor_expression_repeat1]), (STATE 1409, 1,
       [aux_sym_bitwise_and_expression_repeat1]), (STATE 1453, 1, [sym_type_cast]), (STATE 1469,
       1, [sym_type_test]), (STATE 2096, 1, [sym_as_operator]), (STATE 2097, 1,
       [sym_is_operator]), (ACTIONS 1271, 2, [anon_sym_LT_LT, anon_sym_GT_GT_GT]), (ACTIONS 1426,
       2, [anon_sym_LT, anon_sym_GT]), (ACTIONS 1429, 2, [anon_sym_LT_EQ, anon_sym_GT_EQ]),
       (STATE 697, 2, [sym_comment, sym_documentation_comment]), (ACTIONS 1422, 15,
       [anon_sym_RBRACE, anon_sym_COMMA, anon_sym_RBRACK, anon_sym_COLON, anon_sym_RPAREN,
       anon_sym_QMARK_QMARK, sym_equality_operator, anon_sym_DOT_DOT, anon_sym_QMARK_DOT_DOT,
       anon_sym_SEMI, anon_sym_EQ_GT, anon_sym_case, anon_sym_else, anon_sym_AMP_AMP,
       anon_sym_PIPE_PIPE])])]"

lemma small_run_143: "small_run 697 20518 ts_small_parse_table_143 698 20645"
  by (simp add: small_simps ts_small_parse_table_143_def)

definition ts_small_parse_table_144 :: "small_group list" where
  "ts_small_parse_table_144 = [
     (20645, 40, [(ACTIONS 3, 1, [anon_sym_SLASH_SLASH]), (ACTIONS 5, 1,
       [anon_sym_SLASH_STAR]), (ACTIONS 7, 1, [anon_sym_SLASH_SLASH_SLASH]), (ACTIONS 9, 1,
       [sym__block_comment]), (ACTIONS 11, 1, [sym__documentation_block_comment]), (ACTIONS 1273,
       1, [anon_sym_GT_GT]), (ACTIONS 1275, 1, [sym__additive_operator]), (ACTIONS 1279, 1,
       [anon_sym_is]), (ACTIONS 1281, 1, [anon_sym_as]), (ACTIONS 1286, 1, [anon_sym_AMP_AMP]),
       (ACTIONS 1288, 1, [anon_sym_PIPE_PIPE]), (ACTIONS 2064, 1, [anon_sym_QMARK_QMARK]),
       (ACTIONS 2066, 1, [anon_sym_QMARK]), (ACTIONS 2068, 1, [sym_equality_operator]), (ACTIONS
       2070, 1, [anon_sym_PIPE]), (ACTIONS 2072, 1, [anon_sym_CARET]), (ACTIONS 2074, 1,
       [anon_sym_AMP]), (STATE 320, 1, [sym_relational_operator]), (STATE 327, 1,
       [sym_shift_operator]), (STATE 328, 1, [sym_additive_operator]), (STATE 330, 1,
       [sym_logical_and_operator]), (STATE 332, 1, [sym_logical_or_operator]), (STATE 1334, 1,
       [aux_sym_shift_expression_repeat1]), (STATE 1386, 1,
       [aux_sym_additive_expression_repeat1]), (STATE 1392, 1,
       [aux_sym_logical_and_expression_repeat1]), (STATE 1393, 1,
       [aux_sym_logical_or_expression_repeat1]), (STATE 1397, 1, [sym__shift_operator]), (STATE
       1398, 1, [aux_sym__if_null_expression]), (STATE 1405, 1,
       [aux_sym_bitwise_or_expression_repeat1]), (STATE 1408, 1,
       [aux_sym_bitwise_xor_expression_repeat1]), (STATE 1409, 1,
       [aux_sym_bitwise_and_expression_repeat1]), (STATE 1453, 1, [sym_type_cast]), (STATE 1469,
       1, [sym_type_test]), (STATE 2096, 1, [sym_as_operator]), (STATE 2097, 1,
       [sym_is_operator]), (ACTIONS 400, 2, [anon_sym_LT, anon_sym_GT]), (ACTIONS 402, 2,
       [anon_sym_LT_EQ, anon_sym_GT_EQ]), (ACTIONS 1271, 2, [anon_sym_LT_LT, anon_sym_GT_GT_GT]),
       (STATE 698, 2, [sym_comment, sym_documentation_comment]), (ACTIONS 1418, 11,
       [anon_sym_RBRACE, anon_sym_COMMA, anon_sym_RBRACK, anon_sym_COLON, anon_sym_RPAREN,
       anon_sym_DOT_DOT, anon_sym_QMARK_DOT_DOT, anon_sym_SEMI, anon_sym_EQ_GT, anon_sym_case,
       anon_sym_else])])]"

lemma small_run_144: "small_run 698 20645 ts_small_parse_table_144 699 20780"
  by (simp add: small_simps ts_small_parse_table_144_def)

definition ts_small_parse_table_145 :: "small_group list" where
  "ts_small_parse_table_145 = [
     (20780, 24, [(ACTIONS 3, 1, [anon_sym_SLASH_SLASH]), (ACTIONS 5, 1,
       [anon_sym_SLASH_STAR]), (ACTIONS 7, 1, [anon_sym_SLASH_SLASH_SLASH]), (ACTIONS 9, 1,
       [sym__block_comment]), (ACTIONS 11, 1, [sym__documentation_block_comment]), (ACTIONS 2160,
       1, [anon_sym_LPAREN]), (ACTIONS 2168, 1, [anon_sym_BANG]), (ACTIONS 2194, 1,
       [anon_sym_LT]), (ACTIONS 2214, 1, [anon_sym_LBRACK]), (ACTIONS 2216, 1, [anon_sym_QMARK]),
       (ACTIONS 2218, 1, [anon_sym_DOT]), (ACTIONS 2220, 1, [anon_sym_QMARK_DOT]), (STATE 607, 1,
       [sym_index_selector]), (STATE 623, 1, [sym__assignable_selector]), (STATE 706, 1,
       [aux_sym__assignable_selector_part_repeat1]), (STATE 1078, 1, [sym_type_arguments]),
       (STATE 1104, 1, [sym_selector]), (STATE 1158, 1, [sym_arguments]), (STATE 1990, 1,
       [sym__assignable_selector_part]), (STATE 622, 2, [sym_unconditional_assignable_selector,
       sym_conditional_assignable_selector]), (STATE 699, 2, [sym_comment,
       sym_documentation_comment]), (STATE 1105, 2, [sym__exclamation_operator,
       sym_argument_part]), (ACTIONS 2007, 7, [anon_sym_GT, anon_sym_PIPE, anon_sym_AMP,
       anon_sym_GT_GT, anon_sym_SLASH, anon_sym_as, anon_sym_async]), (ACTIONS 1997, 22,
       [anon_sym_LBRACE, anon_sym_COMMA, anon_sym_QMARK_QMARK, sym_equality_operator,
       anon_sym_LT_EQ, anon_sym_GT_EQ, anon_sym_CARET, anon_sym_LT_LT, anon_sym_GT_GT_GT,
       sym__additive_operator, anon_sym_STAR, anon_sym_PERCENT, anon_sym_TILDE_SLASH,
       anon_sym_is, anon_sym_DOT_DOT, anon_sym_QMARK_DOT_DOT, anon_sym_SEMI, anon_sym_EQ_GT,
       anon_sym_async_STAR, anon_sym_sync_STAR, anon_sym_AMP_AMP, anon_sym_PIPE_PIPE])])]"

lemma small_run_145: "small_run 699 20780 ts_small_parse_table_145 700 20883"
  by (simp add: small_simps ts_small_parse_table_145_def)

definition ts_small_parse_table_146 :: "small_group list" where
  "ts_small_parse_table_146 = [
     (20883, 40, [(ACTIONS 3, 1, [anon_sym_SLASH_SLASH]), (ACTIONS 5, 1,
       [anon_sym_SLASH_STAR]), (ACTIONS 7, 1, [anon_sym_SLASH_SLASH_SLASH]), (ACTIONS 9, 1,
       [sym__block_comment]), (ACTIONS 11, 1, [sym__documentation_block_comment]), (ACTIONS 1273,
       1, [anon_sym_GT_GT]), (ACTIONS 1275, 1, [sym__additive_operator]), (ACTIONS 1279, 1,
       [anon_sym_is]), (ACTIONS 1281, 1, [anon_sym_as]), (ACTIONS 1286, 1, [anon_sym_AMP_AMP]),
       (ACTIONS 1288, 1, [anon_sym_PIPE_PIPE]), (ACTIONS 2064, 1, [anon_sym_QMARK_QMARK]),
       (ACTIONS 2066, 1, [anon_sym_QMARK]), (ACTIONS 2068, 1, [sym_equality_operator]), (ACTIONS
       2070, 1, [anon_sym_PIPE]), (ACTIONS 2072, 1, [anon_sym_CARET]), (ACTIONS 2074, 1,
       [anon_sym_AMP]), (STATE 320, 1, [sym_relational_operator]), (STATE 327, 1,
       [sym_shift_operator]), (STATE 328, 1, [sym_additive_operator]), (STATE 330, 1,
       [sym_logical_and_operator]), (STATE 332, 1, [sym_logical_or_operator]), (STATE 1334, 1,
       [aux_sym_shift_expression_repeat1]), (STATE 1386, 1,
       [aux_sym_additive_expression_repeat1]), (STATE 1392, 1,
       [aux_sym_logical_and_expression_repeat1]), (STATE 1393, 1,
       [aux_sym_logical_or_expression_repeat1]), (STATE 1397, 1, [sym__shift_operator]), (STATE
       1398, 1, [aux_sym__if_null_expression]), (STATE 1405, 1,
       [aux_sym_bitwise_or_expression_repeat1]), (STATE 1408, 1,
       [aux_sym_bitwise_xor_expression_repeat1]), (STATE 1409, 1,
       [aux_sym_bitwise_and_expression_repeat1]), (STATE 1453, 1, [sym_type_cast]), (STATE 1469,
       1, [sym_type_test]), (STATE 2096, 1, [sym_as_operator]), (STATE 2097, 1,
       [sym_is_operator]), (ACTIONS 400, 2, [anon_sym_LT, anon_sym_GT]), (ACTIONS 402, 2,
       [anon_sym_LT_EQ, anon_sym_GT_EQ]), (ACTIONS 1271, 2, [anon_sym_LT_LT, anon_sym_GT_GT_GT]),
       (STATE 700, 2, [sym_comment, sym_documentation_comment]), (ACTIONS 1432, 11,
       [anon_sym_RBRACE, anon_sym_COMMA, anon_sym_RBRACK, anon_sym_COLON, anon_sym_RPAREN,
       anon_sym_DOT_DOT, anon_sym_QMARK_DOT_DOT, anon_sym_SEMI, anon_sym_EQ_GT, anon_sym_case,
       anon_sym_else])])]"

lemma small_run_146: "small_run 700 20883 ts_small_parse_table_146 701 21018"
  by (simp add: small_simps ts_small_parse_table_146_def)

definition ts_small_parse_table_147 :: "small_group list" where
  "ts_small_parse_table_147 = [
     (21018, 24, [(ACTIONS 3, 1, [anon_sym_SLASH_SLASH]), (ACTIONS 5, 1,
       [anon_sym_SLASH_STAR]), (ACTIONS 7, 1, [anon_sym_SLASH_SLASH_SLASH]), (ACTIONS 9, 1,
       [sym__block_comment]), (ACTIONS 11, 1, [sym__documentation_block_comment]), (ACTIONS 2162,
       1, [anon_sym_QMARK]), (ACTIONS 2165, 1, [anon_sym_LT]), (ACTIONS 2177, 1,
       [anon_sym_LPAREN]), (ACTIONS 2183, 1, [anon_sym_BANG]), (ACTIONS 2222, 1,
       [anon_sym_LBRACK]), (ACTIONS 2225, 1, [anon_sym_DOT]), (ACTIONS 2228, 1,
       [anon_sym_QMARK_DOT]), (STATE 711, 1, [aux_sym__assignable_selector_part_repeat1]), (STATE
       1030, 1, [sym__assignable_selector]), (STATE 1034, 1, [sym_index_selector]), (STATE 1078,
       1, [sym_type_arguments]), (STATE 1104, 1, [sym_selector]), (STATE 1158, 1,
       [sym_arguments]), (STATE 1990, 1, [sym__assignable_selector_part]), (STATE 701, 2,
       [sym_comment, sym_documentation_comment]), (STATE 1036, 2,
       [sym_unconditional_assignable_selector, sym_conditional_assignable_selector]), (STATE
       1105, 2, [sym__exclamation_operator, sym_argument_part]), (ACTIONS 2031, 7, [anon_sym_GT,
       anon_sym_PIPE, anon_sym_AMP, anon_sym_GT_GT, anon_sym_SLASH, anon_sym_as,
       anon_sym_async]), (ACTIONS 2017, 22, [anon_sym_LBRACE, anon_sym_COMMA,
       anon_sym_QMARK_QMARK, sym_equality_operator, anon_sym_LT_EQ, anon_sym_GT_EQ,
       anon_sym_CARET, anon_sym_LT_LT, anon_sym_GT_GT_GT, sym__additive_operator, anon_sym_STAR,
       anon_sym_PERCENT, anon_sym_TILDE_SLASH, anon_sym_is, anon_sym_DOT_DOT,
       anon_sym_QMARK_DOT_DOT, anon_sym_SEMI, anon_sym_EQ_GT, anon_sym_async_STAR,
       anon_sym_sync_STAR, anon_sym_AMP_AMP, anon_sym_PIPE_PIPE])])]"

lemma small_run_147: "small_run 701 21018 ts_small_parse_table_147 702 21121"
  by (simp add: small_simps ts_small_parse_table_147_def)

definition ts_small_parse_table_148 :: "small_group list" where
  "ts_small_parse_table_148 = [
     (21121, 44, [(ACTIONS 3, 1, [anon_sym_SLASH_SLASH]), (ACTIONS 5, 1,
       [anon_sym_SLASH_STAR]), (ACTIONS 7, 1, [anon_sym_SLASH_SLASH_SLASH]), (ACTIONS 9, 1,
       [sym__block_comment]), (ACTIONS 11, 1, [sym__documentation_block_comment]), (ACTIONS 1273,
       1, [anon_sym_GT_GT]), (ACTIONS 1275, 1, [sym__additive_operator]), (ACTIONS 1279, 1,
       [anon_sym_is]), (ACTIONS 1286, 1, [anon_sym_AMP_AMP]), (ACTIONS 1288, 1,
       [anon_sym_PIPE_PIPE]), (ACTIONS 1448, 1, [anon_sym_as]), (ACTIONS 2198, 1,
       [anon_sym_QMARK_QMARK]), (ACTIONS 2200, 1, [anon_sym_QMARK]), (ACTIONS 2202, 1,
       [sym_equality_operator]), (ACTIONS 2204, 1, [anon_sym_PIPE]), (ACTIONS 2206, 1,
       [anon_sym_CARET]), (ACTIONS 2208, 1, [anon_sym_AMP]), (ACTIONS 2233, 1, [anon_sym_async]),
       (STATE 352, 1, [sym_logical_or_operator]), (STATE 354, 1, [sym_logical_and_operator]),
       (STATE 355, 1, [sym_additive_operator]), (STATE 363, 1, [sym_relational_operator]), (STATE
       367, 1, [sym_shift_operator]), (STATE 1397, 1, [sym__shift_operator]), (STATE 1418, 1,
       [aux_sym_shift_expression_repeat1]), (STATE 1456, 1,
       [aux_sym_logical_or_expression_repeat1]), (STATE 1457, 1,
       [aux_sym_logical_and_expression_repeat1]), (STATE 1461, 1,
       [aux_sym_additive_expression_repeat1]), (STATE 1513, 1,
       [aux_sym_bitwise_or_expression_repeat1]), (STATE 1514, 1,
       [aux_sym_bitwise_xor_expression_repeat1]), (STATE 1516, 1,
       [aux_sym_bitwise_and_expression_repeat1]), (STATE 1529, 1, [aux_sym__if_null_expression]),
       (STATE 1560, 1, [sym_type_test]), (STATE 1563, 1, [sym_type_cast]), (STATE 1962, 1,
       [sym_cascade_section]), (STATE 2086, 1, [sym_as_operator]), (STATE 2087, 1,
       [sym_is_operator]), (STATE 2137, 1, [aux_sym__expression_repeat1]), (ACTIONS 400, 2,
       [anon_sym_LT, anon_sym_GT]), (ACTIONS 402, 2, [anon_sym_LT_EQ, anon_sym_GT_EQ]), (ACTIONS
       1271, 2, [anon_sym_LT_LT, anon_sym_GT_GT_GT]), (ACTIONS 2210, 2, [anon_sym_DOT_DOT,
       anon_sym_QMARK_DOT_DOT]), (STATE 702, 2, [sym_comment, sym_documentation_comment]),
       (ACTIONS 2231, 6, [anon_sym_LBRACE, anon_sym_COMMA, anon_sym_SEMI, anon_sym_EQ_GT,
       anon_sym_async_STAR, anon_sym_sync_STAR])])]"

lemma small_run_148: "small_run 702 21121 ts_small_parse_table_148 703 21264"
  by (simp add: small_simps ts_small_parse_table_148_def)

definition ts_small_parse_table_149 :: "small_group list" where
  "ts_small_parse_table_149 = [
     (21264, 24, [(ACTIONS 3, 1, [anon_sym_SLASH_SLASH]), (ACTIONS 5, 1,
       [anon_sym_SLASH_STAR]), (ACTIONS 7, 1, [anon_sym_SLASH_SLASH_SLASH]), (ACTIONS 9, 1,
       [sym__block_comment]), (ACTIONS 11, 1, [sym__documentation_block_comment]), (ACTIONS 2160,
       1, [anon_sym_LPAREN]), (ACTIONS 2165, 1, [anon_sym_LT]), (ACTIONS 2168, 1,
       [anon_sym_BANG]), (ACTIONS 2180, 1, [anon_sym_QMARK]), (ACTIONS 2214, 1,
       [anon_sym_LBRACK]), (ACTIONS 2218, 1, [anon_sym_DOT]), (ACTIONS 2220, 1,
       [anon_sym_QMARK_DOT]), (STATE 607, 1, [sym_index_selector]), (STATE 623, 1,
       [sym__assignable_selector]), (STATE 712, 1, [aux_sym__assignable_selector_part_repeat1]),
       (STATE 1078, 1, [sym_type_arguments]), (STATE 1104, 1, [sym_selector]), (STATE 1158, 1,
       [sym_arguments]), (STATE 1990, 1, [sym__assignable_selector_part]), (STATE 622, 2,
       [sym_unconditional_assignable_selector, sym_conditional_assignable_selector]), (STATE 703,
       2, [sym_comment, sym_documentation_comment]), (STATE 1105, 2, [sym__exclamation_operator,
       sym_argument_part]), (ACTIONS 2031, 7, [anon_sym_GT, anon_sym_PIPE, anon_sym_AMP,
       anon_sym_GT_GT, anon_sym_SLASH, anon_sym_as, anon_sym_async]), (ACTIONS 2017, 22,
       [anon_sym_LBRACE, anon_sym_COMMA, anon_sym_QMARK_QMARK, sym_equality_operator,
       anon_sym_LT_EQ, anon_sym_GT_EQ, anon_sym_CARET, anon_sym_LT_LT, anon_sym_GT_GT_GT,
       sym__additive_operator, anon_sym_STAR, anon_sym_PERCENT, anon_sym_TILDE_SLASH,
       anon_sym_is, anon_sym_DOT_DOT, anon_sym_QMARK_DOT_DOT, anon_sym_SEMI, anon_sym_EQ_GT,
       anon_sym_async_STAR, anon_sym_sync_STAR, anon_sym_AMP_AMP, anon_sym_PIPE_PIPE])])]"

lemma small_run_149: "small_run 703 21264 ts_small_parse_table_149 704 21367"
  by (simp add: small_simps ts_small_parse_table_149_def)

definition ts_small_parse_table_150 :: "small_group list" where
  "ts_small_parse_table_150 = [
     (21367, 37, [(ACTIONS 3, 1, [anon_sym_SLASH_SLASH]), (ACTIONS 5, 1,
       [anon_sym_SLASH_STAR]), (ACTIONS 7, 1, [anon_sym_SLASH_SLASH_SLASH]), (ACTIONS 9, 1,
       [sym__block_comment]), (ACTIONS 11, 1, [sym__documentation_block_comment]), (ACTIONS 1273,
       1, [anon_sym_GT_GT]), (ACTIONS 1275, 1, [sym__additive_operator]), (ACTIONS 1279, 1,
       [anon_sym_is]), (ACTIONS 1281, 1, [anon_sym_as]), (ACTIONS 1401, 1, [anon_sym_QMARK]),
       (ACTIONS 2070, 1, [anon_sym_PIPE]), (ACTIONS 2072, 1, [anon_sym_CARET]), (ACTIONS 2074, 1,
       [anon_sym_AMP]), (ACTIONS 2235, 1, [sym_equality_operator]), (STATE 320, 1,
       [sym_relational_operator]), (STATE 327, 1, [sym_shift_operator]), (STATE 328, 1,
       [sym_additive_operator]), (STATE 330, 1, [sym_logical_and_operator]), (STATE 332, 1,
       [sym_logical_or_operator]), (STATE 1334, 1, [aux_sym_shift_expression_repeat1]), (STATE
       1386, 1, [aux_sym_additive_expression_repeat1]), (STATE 1392, 1,
       [aux_sym_logical_and_expression_repeat1]), (STATE 1393, 1,
       [aux_sym_logical_or_expression_repeat1]), (STATE 1397, 1, [sym__shift_operator]), (STATE
       1398, 1, [aux_sym__if_null_expression]), (STATE 1405, 1,
       [aux_sym_bitwise_or_expression_repeat1]), (STATE 1408, 1,
       [aux_sym_bitwise_xor_expression_repeat1]), (STATE 1409, 1,
       [aux_sym_bitwise_and_expression_repeat1]), (STATE 1453, 1, [sym_type_cast]), (STATE 1469,
       1, [sym_type_test]), (STATE 2096, 1, [sym_as_operator]), (STATE 2097, 1,
       [sym_is_operator]), (ACTIONS 400, 2, [anon_sym_LT, anon_sym_GT]), (ACTIONS 402, 2,
       [anon_sym_LT_EQ, anon_sym_GT_EQ]), (ACTIONS 1271, 2, [anon_sym_LT_LT, anon_sym_GT_GT_GT]),
       (STATE 704, 2, [sym_comment, sym_documentation_comment]), (ACTIONS 1399, 14,
       [anon_sym_RBRACE, anon_sym_COMMA, anon_sym_RBRACK, anon_sym_COLON, anon_sym_RPAREN,
       anon_sym_QMARK_QMARK, anon_sym_DOT_DOT, anon_sym_QMARK_DOT_DOT, anon_sym_SEMI,
       anon_sym_EQ_GT, anon_sym_case, anon_sym_else, anon_sym_AMP_AMP, anon_sym_PIPE_PIPE])])]"

lemma small_run_150: "small_run 704 21367 ts_small_parse_table_150 705 21496"
  by (simp add: small_simps ts_small_parse_table_150_def)

definition ts_small_parse_table_151 :: "small_group list" where
  "ts_small_parse_table_151 = [
     (21496, 23, [(ACTIONS 3, 1, [anon_sym_SLASH_SLASH]), (ACTIONS 5, 1,
       [anon_sym_SLASH_STAR]), (ACTIONS 7, 1, [anon_sym_SLASH_SLASH_SLASH]), (ACTIONS 9, 1,
       [sym__block_comment]), (ACTIONS 11, 1, [sym__documentation_block_comment]), (ACTIONS 2238,
       1, [anon_sym_LBRACK]), (ACTIONS 2241, 1, [anon_sym_LPAREN]), (ACTIONS 2244, 1,
       [anon_sym_QMARK]), (ACTIONS 2247, 1, [anon_sym_LT]), (ACTIONS 2250, 1, [anon_sym_BANG]),
       (ACTIONS 2253, 1, [anon_sym_DOT]), (ACTIONS 2256, 1, [anon_sym_QMARK_DOT]), (STATE 607, 1,
       [sym_index_selector]), (STATE 621, 1, [sym__assignable_selector]), (STATE 710, 1,
       [aux_sym__assignable_selector_part_repeat1]), (STATE 1078, 1, [sym_type_arguments]),
       (STATE 1104, 1, [sym_selector]), (STATE 1158, 1, [sym_arguments]), (STATE 622, 2,
       [sym_unconditional_assignable_selector, sym_conditional_assignable_selector]), (STATE 705,
       2, [sym_comment, sym_documentation_comment]), (STATE 1105, 2, [sym__exclamation_operator,
       sym_argument_part]), (ACTIONS 2117, 7, [anon_sym_GT, anon_sym_PIPE, anon_sym_AMP,
       anon_sym_GT_GT, anon_sym_SLASH, anon_sym_as, anon_sym_async]), (ACTIONS 2103, 22,
       [anon_sym_LBRACE, anon_sym_COMMA, anon_sym_QMARK_QMARK, sym_equality_operator,
       anon_sym_LT_EQ, anon_sym_GT_EQ, anon_sym_CARET, anon_sym_LT_LT, anon_sym_GT_GT_GT,
       sym__additive_operator, anon_sym_STAR, anon_sym_PERCENT, anon_sym_TILDE_SLASH,
       anon_sym_is, anon_sym_DOT_DOT, anon_sym_QMARK_DOT_DOT, anon_sym_SEMI, anon_sym_EQ_GT,
       anon_sym_async_STAR, anon_sym_sync_STAR, anon_sym_AMP_AMP, anon_sym_PIPE_PIPE])])]"

lemma small_run_151: "small_run 705 21496 ts_small_parse_table_151 706 21596"
  by (simp add: small_simps ts_small_parse_table_151_def)

definition ts_small_parse_table_152 :: "small_group list" where
  "ts_small_parse_table_152 = [
     (21596, 23, [(ACTIONS 3, 1, [anon_sym_SLASH_SLASH]), (ACTIONS 5, 1,
       [anon_sym_SLASH_STAR]), (ACTIONS 7, 1, [anon_sym_SLASH_SLASH_SLASH]), (ACTIONS 9, 1,
       [sym__block_comment]), (ACTIONS 11, 1, [sym__documentation_block_comment]), (ACTIONS 2160,
       1, [anon_sym_LPAREN]), (ACTIONS 2168, 1, [anon_sym_BANG]), (ACTIONS 2194, 1,
       [anon_sym_LT]), (ACTIONS 2214, 1, [anon_sym_LBRACK]), (ACTIONS 2216, 1, [anon_sym_QMARK]),
       (ACTIONS 2218, 1, [anon_sym_DOT]), (ACTIONS 2220, 1, [anon_sym_QMARK_DOT]), (STATE 607, 1,
       [sym_index_selector]), (STATE 621, 1, [sym__assignable_selector]), (STATE 710, 1,
       [aux_sym__assignable_selector_part_repeat1]), (STATE 1078, 1, [sym_type_arguments]),
       (STATE 1104, 1, [sym_selector]), (STATE 1158, 1, [sym_arguments]), (STATE 622, 2,
       [sym_unconditional_assignable_selector, sym_conditional_assignable_selector]), (STATE 706,
       2, [sym_comment, sym_documentation_comment]), (STATE 1105, 2, [sym__exclamation_operator,
       sym_argument_part]), (ACTIONS 2130, 7, [anon_sym_GT, anon_sym_PIPE, anon_sym_AMP,
       anon_sym_GT_GT, anon_sym_SLASH, anon_sym_as, anon_sym_async]), (ACTIONS 2128, 22,
       [anon_sym_LBRACE, anon_sym_COMMA, anon_sym_QMARK_QMARK, sym_equality_operator,
       anon_sym_LT_EQ, anon_sym_GT_EQ, anon_sym_CARET, anon_sym_LT_LT, anon_sym_GT_GT_GT,
       sym__additive_operator, anon_sym_STAR, anon_sym_PERCENT, anon_sym_TILDE_SLASH,
       anon_sym_is, anon_sym_DOT_DOT, anon_sym_QMARK_DOT_DOT, anon_sym_SEMI, anon_sym_EQ_GT,
       anon_sym_async_STAR, anon_sym_sync_STAR, anon_sym_AMP_AMP, anon_sym_PIPE_PIPE])])]"

lemma small_run_152: "small_run 706 21596 ts_small_parse_table_152 707 21696"
  by (simp add: small_simps ts_small_parse_table_152_def)

definition ts_small_parse_table_153 :: "small_group list" where
  "ts_small_parse_table_153 = [
     (21696, 23, [(ACTIONS 3, 1, [anon_sym_SLASH_SLASH]), (ACTIONS 5, 1,
       [anon_sym_SLASH_STAR]), (ACTIONS 7, 1, [anon_sym_SLASH_SLASH_SLASH]), (ACTIONS 9, 1,
       [sym__block_comment]), (ACTIONS 11, 1, [sym__documentation_block_comment]), (ACTIONS 2158,
       1, [anon_sym_LBRACK]), (ACTIONS 2160, 1, [anon_sym_LPAREN]), (ACTIONS 2168, 1,
       [anon_sym_BANG]), (ACTIONS 2170, 1, [anon_sym_DOT]), (ACTIONS 2172, 1,
       [anon_sym_QMARK_DOT]), (ACTIONS 2192, 1, [anon_sym_QMARK]), (ACTIONS 2194, 1,
       [anon_sym_LT]), (STATE 710, 1, [aux_sym__assignable_selector_part_repeat1]), (STATE 1027,
       1, [sym__assignable_selector]), (STATE 1034, 1, [sym_index_selector]), (STATE 1078, 1,
       [sym_type_arguments]), (STATE 1104, 1, [sym_selector]), (STATE 1158, 1, [sym_arguments]),
       (STATE 707, 2, [sym_comment, sym_documentation_comment]), (STATE 1036, 2,
       [sym_unconditional_assignable_selector, sym_conditional_assignable_selector]), (STATE
       1105, 2, [sym__exclamation_operator, sym_argument_part]), (ACTIONS 2130, 7, [anon_sym_GT,
       anon_sym_PIPE, anon_sym_AMP, anon_sym_GT_GT, anon_sym_SLASH, anon_sym_as,
       anon_sym_async]), (ACTIONS 2128, 22, [anon_sym_LBRACE, anon_sym_COMMA,
       anon_sym_QMARK_QMARK, sym_equality_operator, anon_sym_LT_EQ, anon_sym_GT_EQ,
       anon_sym_CARET, anon_sym_LT_LT, anon_sym_GT_GT_GT, sym__additive_operator, anon_sym_STAR,
       anon_sym_PERCENT, anon_sym_TILDE_SLASH, anon_sym_is, anon_sym_DOT_DOT,
       anon_sym_QMARK_DOT_DOT, anon_sym_SEMI, anon_sym_EQ_GT, anon_sym_async_STAR,
       anon_sym_sync_STAR, anon_sym_AMP_AMP, anon_sym_PIPE_PIPE])])]"

lemma small_run_153: "small_run 707 21696 ts_small_parse_table_153 708 21796"
  by (simp add: small_simps ts_small_parse_table_153_def)

definition ts_small_parse_table_154 :: "small_group list" where
  "ts_small_parse_table_154 = [
     (21796, 23, [(ACTIONS 3, 1, [anon_sym_SLASH_SLASH]), (ACTIONS 5, 1,
       [anon_sym_SLASH_STAR]), (ACTIONS 7, 1, [anon_sym_SLASH_SLASH_SLASH]), (ACTIONS 9, 1,
       [sym__block_comment]), (ACTIONS 11, 1, [sym__documentation_block_comment]), (ACTIONS 2158,
       1, [anon_sym_LBRACK]), (ACTIONS 2160, 1, [anon_sym_LPAREN]), (ACTIONS 2168, 1,
       [anon_sym_BANG]), (ACTIONS 2170, 1, [anon_sym_DOT]), (ACTIONS 2172, 1,
       [anon_sym_QMARK_DOT]), (ACTIONS 2247, 1, [anon_sym_LT]), (ACTIONS 2259, 1,
       [anon_sym_QMARK]), (STATE 710, 1, [aux_sym__assignable_selector_part_repeat1]), (STATE
       1027, 1, [sym__assignable_selector]), (STATE 1034, 1, [sym_index_selector]), (STATE 1078,
       1, [sym_type_arguments]), (STATE 1104, 1, [sym_selector]), (STATE 1158, 1,
       [sym_arguments]), (STATE 708, 2, [sym_comment, sym_documentation_comment]), (STATE 1036,
       2, [sym_unconditional_assignable_selector, sym_conditional_assignable_selector]), (STATE
       1105, 2, [sym__exclamation_operator, sym_argument_part]), (ACTIONS 2117, 7, [anon_sym_GT,
       anon_sym_PIPE, anon_sym_AMP, anon_sym_GT_GT, anon_sym_SLASH, anon_sym_as,
       anon_sym_async]), (ACTIONS 2103, 22, [anon_sym_LBRACE, anon_sym_COMMA,
       anon_sym_QMARK_QMARK, sym_equality_operator, anon_sym_LT_EQ, anon_sym_GT_EQ,
       anon_sym_CARET, anon_sym_LT_LT, anon_sym_GT_GT_GT, sym__additive_operator, anon_sym_STAR,
       anon_sym_PERCENT, anon_sym_TILDE_SLASH, anon_sym_is, anon_sym_DOT_DOT,
       anon_sym_QMARK_DOT_DOT, anon_sym_SEMI, anon_sym_EQ_GT, anon_sym_async_STAR,
       anon_sym_sync_STAR, anon_sym_AMP_AMP, anon_sym_PIPE_PIPE])])]"

lemma small_run_154: "small_run 708 21796 ts_small_parse_table_154 709 21896"
  by (simp add: small_simps ts_small_parse_table_154_def)

definition ts_small_parse_table_155 :: "small_group list" where
  "ts_small_parse_table_155 = [
     (21896, 49, [(ACTIONS 3, 1, [anon_sym_SLASH_SLASH]), (ACTIONS 5, 1,
       [anon_sym_SLASH_STAR]), (ACTIONS 7, 1, [anon_sym_SLASH_SLASH_SLASH]), (ACTIONS 9, 1,
       [sym__block_comment]), (ACTIONS 11, 1, [sym__documentation_block_comment]), (ACTIONS 17,
       1, [anon_sym_LPAREN]), (ACTIONS 33, 1, [sym_void_type]), (ACTIONS 35, 1, [anon_sym_var]),
       (ACTIONS 45, 1, [anon_sym_Function]), (ACTIONS 67, 1, [anon_sym_late]), (ACTIONS 143, 1,
       [anon_sym_AT]), (ACTIONS 145, 1, [anon_sym_final]), (ACTIONS 153, 1,
       [anon_sym_covariant]), (ACTIONS 159, 1, [anon_sym_this]), (ACTIONS 161, 1,
       [anon_sym_super]), (ACTIONS 438, 1, [anon_sym_RPAREN]), (ACTIONS 2262, 1,
       [sym_identifier]), (ACTIONS 2264, 1, [anon_sym_LBRACE]), (ACTIONS 2266, 1,
       [anon_sym_LBRACK]), (ACTIONS 2268, 1, [sym_const_builtin]), (STATE 1077, 1,
       [sym__metadata]), (STATE 1308, 1, [aux_sym__metadata_repeat1]), (STATE 1361, 1,
       [sym_annotation]), (STATE 1463, 1, [sym__function_builtin_identifier]), (STATE 1530, 1,
       [sym__type_name]), (STATE 1605, 1, [aux_sym__function_type_tails]), (STATE 1704, 1,
       [sym__function_type_tail]), (STATE 1794, 1, [sym__covariant]), (STATE 1796, 1,
       [sym__type_not_function]), (STATE 1805, 1, [sym_record_type]), (STATE 1848, 1,
       [sym_function_type]), (STATE 1896, 1, [sym__type_not_void_not_function]), (STATE 1915, 1,
       [sym__late_builtin]), (STATE 1976, 1, [sym_inferred_type]), (STATE 1984, 1,
       [sym_final_builtin]), (STATE 2464, 1, [sym__simple_formal_parameter]), (STATE 2466, 1,
       [sym__normal_formal_parameter]), (STATE 2468, 1, [sym__declared_identifier]), (STATE 2557,
       1, [sym__final_const_var_or_type]), (STATE 2750, 1, [sym_formal_parameter]), (STATE 2755,
       1, [sym__var_or_type]), (STATE 2756, 1, [sym__type]), (STATE 3271, 1,
       [sym__normal_formal_parameters]), (STATE 3277, 1, [sym_optional_formal_parameters]),
       (STATE 3283, 1, [sym_this]), (STATE 3288, 1, [sym_super]), (STATE 709, 2, [sym_comment,
       sym_documentation_comment]), (STATE 3424, 2, [sym__optional_postional_formal_parameters,
       sym__named_formal_parameters]), (STATE 2465, 3, [sym__function_formal_parameter,
       sym_super_formal_parameter, sym_constructor_param])])]"

lemma small_run_155: "small_run 709 21896 ts_small_parse_table_155 710 22048"
  by (simp add: small_simps ts_small_parse_table_155_def)

definition ts_small_parse_table_156 :: "small_group list" where
  "ts_small_parse_table_156 = [
     (22048, 21, [(ACTIONS 3, 1, [anon_sym_SLASH_SLASH]), (ACTIONS 5, 1,
       [anon_sym_SLASH_STAR]), (ACTIONS 7, 1, [anon_sym_SLASH_SLASH_SLASH]), (ACTIONS 9, 1,
       [sym__block_comment]), (ACTIONS 11, 1, [sym__documentation_block_comment]), (ACTIONS 2270,
       1, [anon_sym_LBRACK]), (ACTIONS 2273, 1, [anon_sym_LPAREN]), (ACTIONS 2276, 1,
       [anon_sym_QMARK]), (ACTIONS 2279, 1, [anon_sym_LT]), (ACTIONS 2282, 1, [anon_sym_BANG]),
       (ACTIONS 2285, 1, [anon_sym_DOT]), (ACTIONS 2288, 1, [anon_sym_QMARK_DOT]), (STATE 1078,
       1, [sym_type_arguments]), (STATE 1090, 1, [sym_index_selector]), (STATE 1104, 1,
       [sym_selector]), (STATE 1158, 1, [sym_arguments]), (STATE 1096, 2,
       [sym_unconditional_assignable_selector, sym_conditional_assignable_selector]), (STATE 710,
       3, [sym_comment, sym_documentation_comment, aux_sym__assignable_selector_part_repeat1]),
       (STATE 1105, 3, [sym__exclamation_operator, sym_argument_part, sym__assignable_selector]),
       (ACTIONS 2092, 7, [anon_sym_GT, anon_sym_PIPE, anon_sym_AMP, anon_sym_GT_GT,
       anon_sym_SLASH, anon_sym_as, anon_sym_async]), (ACTIONS 2078, 22, [anon_sym_LBRACE,
       anon_sym_COMMA, anon_sym_QMARK_QMARK, sym_equality_operator, anon_sym_LT_EQ,
       anon_sym_GT_EQ, anon_sym_CARET, anon_sym_LT_LT, anon_sym_GT_GT_GT, sym__additive_operator,
       anon_sym_STAR, anon_sym_PERCENT, anon_sym_TILDE_SLASH, anon_sym_is, anon_sym_DOT_DOT,
       anon_sym_QMARK_DOT_DOT, anon_sym_SEMI, anon_sym_EQ_GT, anon_sym_async_STAR,
       anon_sym_sync_STAR, anon_sym_AMP_AMP, anon_sym_PIPE_PIPE])])]"

lemma small_run_156: "small_run 710 22048 ts_small_parse_table_156 711 22144"
  by (simp add: small_simps ts_small_parse_table_156_def)

definition ts_small_parse_table_157 :: "small_group list" where
  "ts_small_parse_table_157 = [
     (22144, 23, [(ACTIONS 3, 1, [anon_sym_SLASH_SLASH]), (ACTIONS 5, 1,
       [anon_sym_SLASH_STAR]), (ACTIONS 7, 1, [anon_sym_SLASH_SLASH_SLASH]), (ACTIONS 9, 1,
       [sym__block_comment]), (ACTIONS 11, 1, [sym__documentation_block_comment]), (ACTIONS 2241,
       1, [anon_sym_LPAREN]), (ACTIONS 2247, 1, [anon_sym_LT]), (ACTIONS 2250, 1,
       [anon_sym_BANG]), (ACTIONS 2259, 1, [anon_sym_QMARK]), (ACTIONS 2291, 1,
       [anon_sym_LBRACK]), (ACTIONS 2294, 1, [anon_sym_DOT]), (ACTIONS 2297, 1,
       [anon_sym_QMARK_DOT]), (STATE 710, 1, [aux_sym__assignable_selector_part_repeat1]), (STATE
       1027, 1, [sym__assignable_selector]), (STATE 1034, 1, [sym_index_selector]), (STATE 1078,
       1, [sym_type_arguments]), (STATE 1104, 1, [sym_selector]), (STATE 1158, 1,
       [sym_arguments]), (STATE 711, 2, [sym_comment, sym_documentation_comment]), (STATE 1036,
       2, [sym_unconditional_assignable_selector, sym_conditional_assignable_selector]), (STATE
       1105, 2, [sym__exclamation_operator, sym_argument_part]), (ACTIONS 2117, 7, [anon_sym_GT,
       anon_sym_PIPE, anon_sym_AMP, anon_sym_GT_GT, anon_sym_SLASH, anon_sym_as,
       anon_sym_async]), (ACTIONS 2103, 22, [anon_sym_LBRACE, anon_sym_COMMA,
       anon_sym_QMARK_QMARK, sym_equality_operator, anon_sym_LT_EQ, anon_sym_GT_EQ,
       anon_sym_CARET, anon_sym_LT_LT, anon_sym_GT_GT_GT, sym__additive_operator, anon_sym_STAR,
       anon_sym_PERCENT, anon_sym_TILDE_SLASH, anon_sym_is, anon_sym_DOT_DOT,
       anon_sym_QMARK_DOT_DOT, anon_sym_SEMI, anon_sym_EQ_GT, anon_sym_async_STAR,
       anon_sym_sync_STAR, anon_sym_AMP_AMP, anon_sym_PIPE_PIPE])])]"

lemma small_run_157: "small_run 711 22144 ts_small_parse_table_157 712 22244"
  by (simp add: small_simps ts_small_parse_table_157_def)

definition ts_small_parse_table_158 :: "small_group list" where
  "ts_small_parse_table_158 = [
     (22244, 23, [(ACTIONS 3, 1, [anon_sym_SLASH_SLASH]), (ACTIONS 5, 1,
       [anon_sym_SLASH_STAR]), (ACTIONS 7, 1, [anon_sym_SLASH_SLASH_SLASH]), (ACTIONS 9, 1,
       [sym__block_comment]), (ACTIONS 11, 1, [sym__documentation_block_comment]), (ACTIONS 2160,
       1, [anon_sym_LPAREN]), (ACTIONS 2168, 1, [anon_sym_BANG]), (ACTIONS 2214, 1,
       [anon_sym_LBRACK]), (ACTIONS 2218, 1, [anon_sym_DOT]), (ACTIONS 2220, 1,
       [anon_sym_QMARK_DOT]), (ACTIONS 2244, 1, [anon_sym_QMARK]), (ACTIONS 2247, 1,
       [anon_sym_LT]), (STATE 607, 1, [sym_index_selector]), (STATE 621, 1,
       [sym__assignable_selector]), (STATE 710, 1, [aux_sym__assignable_selector_part_repeat1]),
       (STATE 1078, 1, [sym_type_arguments]), (STATE 1104, 1, [sym_selector]), (STATE 1158, 1,
       [sym_arguments]), (STATE 622, 2, [sym_unconditional_assignable_selector,
       sym_conditional_assignable_selector]), (STATE 712, 2, [sym_comment,
       sym_documentation_comment]), (STATE 1105, 2, [sym__exclamation_operator,
       sym_argument_part]), (ACTIONS 2117, 7, [anon_sym_GT, anon_sym_PIPE, anon_sym_AMP,
       anon_sym_GT_GT, anon_sym_SLASH, anon_sym_as, anon_sym_async]), (ACTIONS 2103, 22,
       [anon_sym_LBRACE, anon_sym_COMMA, anon_sym_QMARK_QMARK, sym_equality_operator,
       anon_sym_LT_EQ, anon_sym_GT_EQ, anon_sym_CARET, anon_sym_LT_LT, anon_sym_GT_GT_GT,
       sym__additive_operator, anon_sym_STAR, anon_sym_PERCENT, anon_sym_TILDE_SLASH,
       anon_sym_is, anon_sym_DOT_DOT, anon_sym_QMARK_DOT_DOT, anon_sym_SEMI, anon_sym_EQ_GT,
       anon_sym_async_STAR, anon_sym_sync_STAR, anon_sym_AMP_AMP, anon_sym_PIPE_PIPE])])]"

lemma small_run_158: "small_run 712 22244 ts_small_parse_table_158 713 22344"
  by (simp add: small_simps ts_small_parse_table_158_def)

definition ts_small_parse_table_159 :: "small_group list" where
  "ts_small_parse_table_159 = [
     (22344, 41, [(ACTIONS 3, 1, [anon_sym_SLASH_SLASH]), (ACTIONS 5, 1,
       [anon_sym_SLASH_STAR]), (ACTIONS 7, 1, [anon_sym_SLASH_SLASH_SLASH]), (ACTIONS 9, 1,
       [sym__block_comment]), (ACTIONS 11, 1, [sym__documentation_block_comment]), (ACTIONS 1273,
       1, [anon_sym_GT_GT]), (ACTIONS 1275, 1, [sym__additive_operator]), (ACTIONS 1279, 1,
       [anon_sym_is]), (ACTIONS 1286, 1, [anon_sym_AMP_AMP]), (ACTIONS 1288, 1,
       [anon_sym_PIPE_PIPE]), (ACTIONS 1408, 1, [anon_sym_async]), (ACTIONS 1448, 1,
       [anon_sym_as]), (ACTIONS 2198, 1, [anon_sym_QMARK_QMARK]), (ACTIONS 2200, 1,
       [anon_sym_QMARK]), (ACTIONS 2202, 1, [sym_equality_operator]), (ACTIONS 2204, 1,
       [anon_sym_PIPE]), (ACTIONS 2206, 1, [anon_sym_CARET]), (ACTIONS 2208, 1, [anon_sym_AMP]),
       (STATE 352, 1, [sym_logical_or_operator]), (STATE 354, 1, [sym_logical_and_operator]),
       (STATE 355, 1, [sym_additive_operator]), (STATE 363, 1, [sym_relational_operator]), (STATE
       367, 1, [sym_shift_operator]), (STATE 1397, 1, [sym__shift_operator]), (STATE 1418, 1,
       [aux_sym_shift_expression_repeat1]), (STATE 1456, 1,
       [aux_sym_logical_or_expression_repeat1]), (STATE 1457, 1,
       [aux_sym_logical_and_expression_repeat1]), (STATE 1461, 1,
       [aux_sym_additive_expression_repeat1]), (STATE 1513, 1,
       [aux_sym_bitwise_or_expression_repeat1]), (STATE 1514, 1,
       [aux_sym_bitwise_xor_expression_repeat1]), (STATE 1516, 1,
       [aux_sym_bitwise_and_expression_repeat1]), (STATE 1529, 1, [aux_sym__if_null_expression]),
       (STATE 1560, 1, [sym_type_test]), (STATE 1563, 1, [sym_type_cast]), (STATE 2086, 1,
       [sym_as_operator]), (STATE 2087, 1, [sym_is_operator]), (ACTIONS 400, 2, [anon_sym_LT,
       anon_sym_GT]), (ACTIONS 402, 2, [anon_sym_LT_EQ, anon_sym_GT_EQ]), (ACTIONS 1271, 2,
       [anon_sym_LT_LT, anon_sym_GT_GT_GT]), (STATE 713, 2, [sym_comment,
       sym_documentation_comment]), (ACTIONS 1406, 8, [anon_sym_LBRACE, anon_sym_COMMA,
       anon_sym_DOT_DOT, anon_sym_QMARK_DOT_DOT, anon_sym_SEMI, anon_sym_EQ_GT,
       anon_sym_async_STAR, anon_sym_sync_STAR])])]"

lemma small_run_159: "small_run 713 22344 ts_small_parse_table_159 714 22479"
  by (simp add: small_simps ts_small_parse_table_159_def)

definition ts_small_parse_table_160 :: "small_group list" where
  "ts_small_parse_table_160 = [
     (22479, 36, [(ACTIONS 3, 1, [anon_sym_SLASH_SLASH]), (ACTIONS 5, 1,
       [anon_sym_SLASH_STAR]), (ACTIONS 7, 1, [anon_sym_SLASH_SLASH_SLASH]), (ACTIONS 9, 1,
       [sym__block_comment]), (ACTIONS 11, 1, [sym__documentation_block_comment]), (ACTIONS 1273,
       1, [anon_sym_GT_GT]), (ACTIONS 1275, 1, [sym__additive_operator]), (ACTIONS 1279, 1,
       [anon_sym_is]), (ACTIONS 1448, 1, [anon_sym_as]), (ACTIONS 2204, 1, [anon_sym_PIPE]),
       (ACTIONS 2206, 1, [anon_sym_CARET]), (ACTIONS 2208, 1, [anon_sym_AMP]), (STATE 352, 1,
       [sym_logical_or_operator]), (STATE 354, 1, [sym_logical_and_operator]), (STATE 355, 1,
       [sym_additive_operator]), (STATE 363, 1, [sym_relational_operator]), (STATE 367, 1,
       [sym_shift_operator]), (STATE 1397, 1, [sym__shift_operator]), (STATE 1418, 1,
       [aux_sym_shift_expression_repeat1]), (STATE 1456, 1,
       [aux_sym_logical_or_expression_repeat1]), (STATE 1457, 1,
       [aux_sym_logical_and_expression_repeat1]), (STATE 1461, 1,
       [aux_sym_additive_expression_repeat1]), (STATE 1513, 1,
       [aux_sym_bitwise_or_expression_repeat1]), (STATE 1514, 1,
       [aux_sym_bitwise_xor_expression_repeat1]), (STATE 1516, 1,
       [aux_sym_bitwise_and_expression_repeat1]), (STATE 1529, 1, [aux_sym__if_null_expression]),
       (STATE 1560, 1, [sym_type_test]), (STATE 1563, 1, [sym_type_cast]), (STATE 2086, 1,
       [sym_as_operator]), (STATE 2087, 1, [sym_is_operator]), (ACTIONS 1271, 2, [anon_sym_LT_LT,
       anon_sym_GT_GT_GT]), (ACTIONS 1424, 2, [anon_sym_QMARK, anon_sym_async]), (ACTIONS 1426,
       2, [anon_sym_LT, anon_sym_GT]), (ACTIONS 1429, 2, [anon_sym_LT_EQ, anon_sym_GT_EQ]),
       (STATE 714, 2, [sym_comment, sym_documentation_comment]), (ACTIONS 1422, 12,
       [anon_sym_LBRACE, anon_sym_COMMA, anon_sym_QMARK_QMARK, sym_equality_operator,
       anon_sym_DOT_DOT, anon_sym_QMARK_DOT_DOT, anon_sym_SEMI, anon_sym_EQ_GT,
       anon_sym_async_STAR, anon_sym_sync_STAR, anon_sym_AMP_AMP, anon_sym_PIPE_PIPE])])]"

lemma small_run_160: "small_run 714 22479 ts_small_parse_table_160 715 22604"
  by (simp add: small_simps ts_small_parse_table_160_def)

definition ts_small_parse_table_161 :: "small_group list" where
  "ts_small_parse_table_161 = [
     (22604, 41, [(ACTIONS 3, 1, [anon_sym_SLASH_SLASH]), (ACTIONS 5, 1,
       [anon_sym_SLASH_STAR]), (ACTIONS 7, 1, [anon_sym_SLASH_SLASH_SLASH]), (ACTIONS 9, 1,
       [sym__block_comment]), (ACTIONS 11, 1, [sym__documentation_block_comment]), (ACTIONS 1273,
       1, [anon_sym_GT_GT]), (ACTIONS 1275, 1, [sym__additive_operator]), (ACTIONS 1279, 1,
       [anon_sym_is]), (ACTIONS 1286, 1, [anon_sym_AMP_AMP]), (ACTIONS 1288, 1,
       [anon_sym_PIPE_PIPE]), (ACTIONS 1359, 1, [anon_sym_async]), (ACTIONS 1448, 1,
       [anon_sym_as]), (ACTIONS 2198, 1, [anon_sym_QMARK_QMARK]), (ACTIONS 2200, 1,
       [anon_sym_QMARK]), (ACTIONS 2202, 1, [sym_equality_operator]), (ACTIONS 2204, 1,
       [anon_sym_PIPE]), (ACTIONS 2206, 1, [anon_sym_CARET]), (ACTIONS 2208, 1, [anon_sym_AMP]),
       (STATE 352, 1, [sym_logical_or_operator]), (STATE 354, 1, [sym_logical_and_operator]),
       (STATE 355, 1, [sym_additive_operator]), (STATE 363, 1, [sym_relational_operator]), (STATE
       367, 1, [sym_shift_operator]), (STATE 1397, 1, [sym__shift_operator]), (STATE 1418, 1,
       [aux_sym_shift_expression_repeat1]), (STATE 1456, 1,
       [aux_sym_logical_or_expression_repeat1]), (STATE 1457, 1,
       [aux_sym_logical_and_expression_repeat1]), (STATE 1461, 1,
       [aux_sym_additive_expression_repeat1]), (STATE 1513, 1,
       [aux_sym_bitwise_or_expression_repeat1]), (STATE 1514, 1,
       [aux_sym_bitwise_xor_expression_repeat1]), (STATE 1516, 1,
       [aux_sym_bitwise_and_expression_repeat1]), (STATE 1529, 1, [aux_sym__if_null_expression]),
       (STATE 1560, 1, [sym_type_test]), (STATE 1563, 1, [sym_type_cast]), (STATE 2086, 1,
       [sym_as_operator]), (STATE 2087, 1, [sym_is_operator]), (ACTIONS 400, 2, [anon_sym_LT,
       anon_sym_GT]), (ACTIONS 402, 2, [anon_sym_LT_EQ, anon_sym_GT_EQ]), (ACTIONS 1271, 2,
       [anon_sym_LT_LT, anon_sym_GT_GT_GT]), (STATE 715, 2, [sym_comment,
       sym_documentation_comment]), (ACTIONS 1357, 8, [anon_sym_LBRACE, anon_sym_COMMA,
       anon_sym_DOT_DOT, anon_sym_QMARK_DOT_DOT, anon_sym_SEMI, anon_sym_EQ_GT,
       anon_sym_async_STAR, anon_sym_sync_STAR])])]"

lemma small_run_161: "small_run 715 22604 ts_small_parse_table_161 716 22739"
  by (simp add: small_simps ts_small_parse_table_161_def)

definition ts_small_parse_table_162 :: "small_group list" where
  "ts_small_parse_table_162 = [
     (22739, 24, [(ACTIONS 3, 1, [anon_sym_SLASH_SLASH]), (ACTIONS 5, 1,
       [anon_sym_SLASH_STAR]), (ACTIONS 7, 1, [anon_sym_SLASH_SLASH_SLASH]), (ACTIONS 9, 1,
       [sym__block_comment]), (ACTIONS 11, 1, [sym__documentation_block_comment]), (ACTIONS 2300,
       1, [anon_sym_LBRACK]), (ACTIONS 2302, 1, [anon_sym_LPAREN]), (ACTIONS 2304, 1,
       [anon_sym_QMARK]), (ACTIONS 2307, 1, [anon_sym_LT]), (ACTIONS 2310, 1, [anon_sym_BANG]),
       (ACTIONS 2312, 1, [anon_sym_DOT]), (ACTIONS 2314, 1, [anon_sym_QMARK_DOT]), (STATE 675, 1,
       [sym__assignable_selector]), (STATE 676, 1, [sym_index_selector]), (STATE 748, 1,
       [aux_sym__assignable_selector_part_repeat1]), (STATE 1202, 1, [sym_type_arguments]),
       (STATE 1253, 1, [sym_arguments]), (STATE 1256, 1, [sym_selector]), (STATE 1990, 1,
       [sym__assignable_selector_part]), (STATE 661, 2, [sym_unconditional_assignable_selector,
       sym_conditional_assignable_selector]), (STATE 716, 2, [sym_comment,
       sym_documentation_comment]), (STATE 1255, 2, [sym__exclamation_operator,
       sym_argument_part]), (ACTIONS 2031, 5, [anon_sym_GT, anon_sym_PIPE, anon_sym_AMP,
       anon_sym_GT_GT, anon_sym_SLASH]), (ACTIONS 2017, 22, [anon_sym_RBRACE, anon_sym_COMMA,
       anon_sym_RBRACK, anon_sym_COLON, anon_sym_RPAREN, anon_sym_QMARK_QMARK,
       sym_equality_operator, anon_sym_LT_EQ, anon_sym_GT_EQ, anon_sym_CARET, anon_sym_LT_LT,
       anon_sym_GT_GT_GT, sym__additive_operator, anon_sym_STAR, anon_sym_PERCENT,
       anon_sym_TILDE_SLASH, anon_sym_is, anon_sym_as, anon_sym_EQ_GT, anon_sym_when,
       anon_sym_AMP_AMP, anon_sym_PIPE_PIPE])])]"

lemma small_run_162: "small_run 716 22739 ts_small_parse_table_162 717 22840"
  by (simp add: small_simps ts_small_parse_table_162_def)

definition ts_small_parse_table_163 :: "small_group list" where
  "ts_small_parse_table_163 = [
     (22840, 24, [(ACTIONS 3, 1, [anon_sym_SLASH_SLASH]), (ACTIONS 5, 1,
       [anon_sym_SLASH_STAR]), (ACTIONS 7, 1, [anon_sym_SLASH_SLASH_SLASH]), (ACTIONS 9, 1,
       [sym__block_comment]), (ACTIONS 11, 1, [sym__documentation_block_comment]), (ACTIONS 2300,
       1, [anon_sym_LBRACK]), (ACTIONS 2302, 1, [anon_sym_LPAREN]), (ACTIONS 2310, 1,
       [anon_sym_BANG]), (ACTIONS 2312, 1, [anon_sym_DOT]), (ACTIONS 2314, 1,
       [anon_sym_QMARK_DOT]), (ACTIONS 2316, 1, [anon_sym_QMARK]), (ACTIONS 2318, 1,
       [anon_sym_LT]), (STATE 675, 1, [sym__assignable_selector]), (STATE 676, 1,
       [sym_index_selector]), (STATE 749, 1, [aux_sym__assignable_selector_part_repeat1]), (STATE
       1202, 1, [sym_type_arguments]), (STATE 1253, 1, [sym_arguments]), (STATE 1256, 1,
       [sym_selector]), (STATE 1990, 1, [sym__assignable_selector_part]), (STATE 661, 2,
       [sym_unconditional_assignable_selector, sym_conditional_assignable_selector]), (STATE 717,
       2, [sym_comment, sym_documentation_comment]), (STATE 1255, 2, [sym__exclamation_operator,
       sym_argument_part]), (ACTIONS 2007, 5, [anon_sym_GT, anon_sym_PIPE, anon_sym_AMP,
       anon_sym_GT_GT, anon_sym_SLASH]), (ACTIONS 1997, 22, [anon_sym_RBRACE, anon_sym_COMMA,
       anon_sym_RBRACK, anon_sym_COLON, anon_sym_RPAREN, anon_sym_QMARK_QMARK,
       sym_equality_operator, anon_sym_LT_EQ, anon_sym_GT_EQ, anon_sym_CARET, anon_sym_LT_LT,
       anon_sym_GT_GT_GT, sym__additive_operator, anon_sym_STAR, anon_sym_PERCENT,
       anon_sym_TILDE_SLASH, anon_sym_is, anon_sym_as, anon_sym_EQ_GT, anon_sym_when,
       anon_sym_AMP_AMP, anon_sym_PIPE_PIPE])])]"

lemma small_run_163: "small_run 717 22840 ts_small_parse_table_163 718 22941"
  by (simp add: small_simps ts_small_parse_table_163_def)

definition ts_small_parse_table_164 :: "small_group list" where
  "ts_small_parse_table_164 = [
     (22941, 41, [(ACTIONS 3, 1, [anon_sym_SLASH_SLASH]), (ACTIONS 5, 1,
       [anon_sym_SLASH_STAR]), (ACTIONS 7, 1, [anon_sym_SLASH_SLASH_SLASH]), (ACTIONS 9, 1,
       [sym__block_comment]), (ACTIONS 11, 1, [sym__documentation_block_comment]), (ACTIONS 1273,
       1, [anon_sym_GT_GT]), (ACTIONS 1275, 1, [sym__additive_operator]), (ACTIONS 1279, 1,
       [anon_sym_is]), (ACTIONS 1286, 1, [anon_sym_AMP_AMP]), (ACTIONS 1288, 1,
       [anon_sym_PIPE_PIPE]), (ACTIONS 1420, 1, [anon_sym_async]), (ACTIONS 1448, 1,
       [anon_sym_as]), (ACTIONS 2198, 1, [anon_sym_QMARK_QMARK]), (ACTIONS 2200, 1,
       [anon_sym_QMARK]), (ACTIONS 2202, 1, [sym_equality_operator]), (ACTIONS 2204, 1,
       [anon_sym_PIPE]), (ACTIONS 2206, 1, [anon_sym_CARET]), (ACTIONS 2208, 1, [anon_sym_AMP]),
       (STATE 352, 1, [sym_logical_or_operator]), (STATE 354, 1, [sym_logical_and_operator]),
       (STATE 355, 1, [sym_additive_operator]), (STATE 363, 1, [sym_relational_operator]), (STATE
       367, 1, [sym_shift_operator]), (STATE 1397, 1, [sym__shift_operator]), (STATE 1418, 1,
       [aux_sym_shift_expression_repeat1]), (STATE 1456, 1,
       [aux_sym_logical_or_expression_repeat1]), (STATE 1457, 1,
       [aux_sym_logical_and_expression_repeat1]), (STATE 1461, 1,
       [aux_sym_additive_expression_repeat1]), (STATE 1513, 1,
       [aux_sym_bitwise_or_expression_repeat1]), (STATE 1514, 1,
       [aux_sym_bitwise_xor_expression_repeat1]), (STATE 1516, 1,
       [aux_sym_bitwise_and_expression_repeat1]), (STATE 1529, 1, [aux_sym__if_null_expression]),
       (STATE 1560, 1, [sym_type_test]), (STATE 1563, 1, [sym_type_cast]), (STATE 2086, 1,
       [sym_as_operator]), (STATE 2087, 1, [sym_is_operator]), (ACTIONS 400, 2, [anon_sym_LT,
       anon_sym_GT]), (ACTIONS 402, 2, [anon_sym_LT_EQ, anon_sym_GT_EQ]), (ACTIONS 1271, 2,
       [anon_sym_LT_LT, anon_sym_GT_GT_GT]), (STATE 718, 2, [sym_comment,
       sym_documentation_comment]), (ACTIONS 1418, 8, [anon_sym_LBRACE, anon_sym_COMMA,
       anon_sym_DOT_DOT, anon_sym_QMARK_DOT_DOT, anon_sym_SEMI, anon_sym_EQ_GT,
       anon_sym_async_STAR, anon_sym_sync_STAR])])]"

lemma small_run_164: "small_run 718 22941 ts_small_parse_table_164 719 23076"
  by (simp add: small_simps ts_small_parse_table_164_def)

definition ts_small_parse_table_165 :: "small_group list" where
  "ts_small_parse_table_165 = [
     (23076, 24, [(ACTIONS 3, 1, [anon_sym_SLASH_SLASH]), (ACTIONS 5, 1,
       [anon_sym_SLASH_STAR]), (ACTIONS 7, 1, [anon_sym_SLASH_SLASH_SLASH]), (ACTIONS 9, 1,
       [sym__block_comment]), (ACTIONS 11, 1, [sym__documentation_block_comment]), (ACTIONS 2302,
       1, [anon_sym_LPAREN]), (ACTIONS 2307, 1, [anon_sym_LT]), (ACTIONS 2310, 1,
       [anon_sym_BANG]), (ACTIONS 2320, 1, [anon_sym_LBRACK]), (ACTIONS 2322, 1,
       [anon_sym_QMARK]), (ACTIONS 2325, 1, [anon_sym_DOT]), (ACTIONS 2327, 1,
       [anon_sym_QMARK_DOT]), (STATE 741, 1, [aux_sym__assignable_selector_part_repeat1]), (STATE
       1202, 1, [sym_type_arguments]), (STATE 1209, 1, [sym__assignable_selector]), (STATE 1211,
       1, [sym_index_selector]), (STATE 1253, 1, [sym_arguments]), (STATE 1256, 1,
       [sym_selector]), (STATE 1990, 1, [sym__assignable_selector_part]), (STATE 719, 2,
       [sym_comment, sym_documentation_comment]), (STATE 1210, 2,
       [sym_unconditional_assignable_selector, sym_conditional_assignable_selector]), (STATE
       1255, 2, [sym__exclamation_operator, sym_argument_part]), (ACTIONS 2031, 5, [anon_sym_GT,
       anon_sym_PIPE, anon_sym_AMP, anon_sym_GT_GT, anon_sym_SLASH]), (ACTIONS 2017, 22,
       [anon_sym_RBRACE, anon_sym_COMMA, anon_sym_RBRACK, anon_sym_COLON, anon_sym_RPAREN,
       anon_sym_QMARK_QMARK, sym_equality_operator, anon_sym_LT_EQ, anon_sym_GT_EQ,
       anon_sym_CARET, anon_sym_LT_LT, anon_sym_GT_GT_GT, sym__additive_operator, anon_sym_STAR,
       anon_sym_PERCENT, anon_sym_TILDE_SLASH, anon_sym_is, anon_sym_as, anon_sym_EQ_GT,
       anon_sym_when, anon_sym_AMP_AMP, anon_sym_PIPE_PIPE])])]"

lemma small_run_165: "small_run 719 23076 ts_small_parse_table_165 720 23177"
  by (simp add: small_simps ts_small_parse_table_165_def)

definition ts_small_parse_table_166 :: "small_group list" where
  "ts_small_parse_table_166 = [
     (23177, 41, [(ACTIONS 3, 1, [anon_sym_SLASH_SLASH]), (ACTIONS 5, 1,
       [anon_sym_SLASH_STAR]), (ACTIONS 7, 1, [anon_sym_SLASH_SLASH_SLASH]), (ACTIONS 9, 1,
       [sym__block_comment]), (ACTIONS 11, 1, [sym__documentation_block_comment]), (ACTIONS 1273,
       1, [anon_sym_GT_GT]), (ACTIONS 1275, 1, [sym__additive_operator]), (ACTIONS 1279, 1,
       [anon_sym_is]), (ACTIONS 1286, 1, [anon_sym_AMP_AMP]), (ACTIONS 1288, 1,
       [anon_sym_PIPE_PIPE]), (ACTIONS 1355, 1, [anon_sym_async]), (ACTIONS 1448, 1,
       [anon_sym_as]), (ACTIONS 2198, 1, [anon_sym_QMARK_QMARK]), (ACTIONS 2200, 1,
       [anon_sym_QMARK]), (ACTIONS 2202, 1, [sym_equality_operator]), (ACTIONS 2204, 1,
       [anon_sym_PIPE]), (ACTIONS 2206, 1, [anon_sym_CARET]), (ACTIONS 2208, 1, [anon_sym_AMP]),
       (STATE 352, 1, [sym_logical_or_operator]), (STATE 354, 1, [sym_logical_and_operator]),
       (STATE 355, 1, [sym_additive_operator]), (STATE 363, 1, [sym_relational_operator]), (STATE
       367, 1, [sym_shift_operator]), (STATE 1397, 1, [sym__shift_operator]), (STATE 1418, 1,
       [aux_sym_shift_expression_repeat1]), (STATE 1456, 1,
       [aux_sym_logical_or_expression_repeat1]), (STATE 1457, 1,
       [aux_sym_logical_and_expression_repeat1]), (STATE 1461, 1,
       [aux_sym_additive_expression_repeat1]), (STATE 1513, 1,
       [aux_sym_bitwise_or_expression_repeat1]), (STATE 1514, 1,
       [aux_sym_bitwise_xor_expression_repeat1]), (STATE 1516, 1,
       [aux_sym_bitwise_and_expression_repeat1]), (STATE 1529, 1, [aux_sym__if_null_expression]),
       (STATE 1560, 1, [sym_type_test]), (STATE 1563, 1, [sym_type_cast]), (STATE 2086, 1,
       [sym_as_operator]), (STATE 2087, 1, [sym_is_operator]), (ACTIONS 400, 2, [anon_sym_LT,
       anon_sym_GT]), (ACTIONS 402, 2, [anon_sym_LT_EQ, anon_sym_GT_EQ]), (ACTIONS 1271, 2,
       [anon_sym_LT_LT, anon_sym_GT_GT_GT]), (STATE 720, 2, [sym_comment,
       sym_documentation_comment]), (ACTIONS 1353, 8, [anon_sym_LBRACE, anon_sym_COMMA,
       anon_sym_DOT_DOT, anon_sym_QMARK_DOT_DOT, anon_sym_SEMI, anon_sym_EQ_GT,
       anon_sym_async_STAR, anon_sym_sync_STAR])])]"

lemma small_run_166: "small_run 720 23177 ts_small_parse_table_166 721 23312"
  by (simp add: small_simps ts_small_parse_table_166_def)

definition ts_small_parse_table_167 :: "small_group list" where
  "ts_small_parse_table_167 = [
     (23312, 37, [(ACTIONS 3, 1, [anon_sym_SLASH_SLASH]), (ACTIONS 5, 1,
       [anon_sym_SLASH_STAR]), (ACTIONS 7, 1, [anon_sym_SLASH_SLASH_SLASH]), (ACTIONS 9, 1,
       [sym__block_comment]), (ACTIONS 11, 1, [sym__documentation_block_comment]), (ACTIONS 1273,
       1, [anon_sym_GT_GT]), (ACTIONS 1275, 1, [sym__additive_operator]), (ACTIONS 1279, 1,
       [anon_sym_is]), (ACTIONS 1448, 1, [anon_sym_as]), (ACTIONS 2204, 1, [anon_sym_PIPE]),
       (ACTIONS 2206, 1, [anon_sym_CARET]), (ACTIONS 2208, 1, [anon_sym_AMP]), (ACTIONS 2329, 1,
       [sym_equality_operator]), (STATE 352, 1, [sym_logical_or_operator]), (STATE 354, 1,
       [sym_logical_and_operator]), (STATE 355, 1, [sym_additive_operator]), (STATE 363, 1,
       [sym_relational_operator]), (STATE 367, 1, [sym_shift_operator]), (STATE 1397, 1,
       [sym__shift_operator]), (STATE 1418, 1, [aux_sym_shift_expression_repeat1]), (STATE 1456,
       1, [aux_sym_logical_or_expression_repeat1]), (STATE 1457, 1,
       [aux_sym_logical_and_expression_repeat1]), (STATE 1461, 1,
       [aux_sym_additive_expression_repeat1]), (STATE 1513, 1,
       [aux_sym_bitwise_or_expression_repeat1]), (STATE 1514, 1,
       [aux_sym_bitwise_xor_expression_repeat1]), (STATE 1516, 1,
       [aux_sym_bitwise_and_expression_repeat1]), (STATE 1529, 1, [aux_sym__if_null_expression]),
       (STATE 1560, 1, [sym_type_test]), (STATE 1563, 1, [sym_type_cast]), (STATE 2086, 1,
       [sym_as_operator]), (STATE 2087, 1, [sym_is_operator]), (ACTIONS 400, 2, [anon_sym_LT,
       anon_sym_GT]), (ACTIONS 402, 2, [anon_sym_LT_EQ, anon_sym_GT_EQ]), (ACTIONS 1271, 2,
       [anon_sym_LT_LT, anon_sym_GT_GT_GT]), (ACTIONS 1401, 2, [anon_sym_QMARK, anon_sym_async]),
       (STATE 721, 2, [sym_comment, sym_documentation_comment]), (ACTIONS 1399, 11,
       [anon_sym_LBRACE, anon_sym_COMMA, anon_sym_QMARK_QMARK, anon_sym_DOT_DOT,
       anon_sym_QMARK_DOT_DOT, anon_sym_SEMI, anon_sym_EQ_GT, anon_sym_async_STAR,
       anon_sym_sync_STAR, anon_sym_AMP_AMP, anon_sym_PIPE_PIPE])])]"

lemma small_run_167: "small_run 721 23312 ts_small_parse_table_167 722 23439"
  by (simp add: small_simps ts_small_parse_table_167_def)

definition ts_small_parse_table_168 :: "small_group list" where
  "ts_small_parse_table_168 = [
     (23439, 44, [(ACTIONS 3, 1, [anon_sym_SLASH_SLASH]), (ACTIONS 5, 1,
       [anon_sym_SLASH_STAR]), (ACTIONS 7, 1, [anon_sym_SLASH_SLASH_SLASH]), (ACTIONS 9, 1,
       [sym__block_comment]), (ACTIONS 11, 1, [sym__documentation_block_comment]), (ACTIONS 1273,
       1, [anon_sym_GT_GT]), (ACTIONS 1275, 1, [sym__additive_operator]), (ACTIONS 1279, 1,
       [anon_sym_is]), (ACTIONS 1281, 1, [anon_sym_as]), (ACTIONS 1286, 1, [anon_sym_AMP_AMP]),
       (ACTIONS 1288, 1, [anon_sym_PIPE_PIPE]), (ACTIONS 2332, 1, [anon_sym_QMARK_QMARK]),
       (ACTIONS 2334, 1, [anon_sym_QMARK]), (ACTIONS 2336, 1, [sym_equality_operator]), (ACTIONS
       2338, 1, [anon_sym_PIPE]), (ACTIONS 2340, 1, [anon_sym_CARET]), (ACTIONS 2342, 1,
       [anon_sym_AMP]), (STATE 322, 1, [sym_logical_or_operator]), (STATE 324, 1,
       [sym_logical_and_operator]), (STATE 335, 1, [sym_additive_operator]), (STATE 339, 1,
       [sym_shift_operator]), (STATE 351, 1, [sym_relational_operator]), (STATE 956, 1,
       [sym_type_cast]), (STATE 957, 1, [sym_type_test]), (STATE 1397, 1, [sym__shift_operator]),
       (STATE 1517, 1, [aux_sym_shift_expression_repeat1]), (STATE 1570, 1,
       [aux_sym_logical_or_expression_repeat1]), (STATE 1574, 1,
       [aux_sym_logical_and_expression_repeat1]), (STATE 1582, 1,
       [aux_sym_additive_expression_repeat1]), (STATE 1662, 1, [aux_sym__if_null_expression]),
       (STATE 1663, 1, [aux_sym_bitwise_or_expression_repeat1]), (STATE 1665, 1,
       [aux_sym_bitwise_xor_expression_repeat1]), (STATE 1666, 1,
       [aux_sym_bitwise_and_expression_repeat1]), (STATE 1962, 1, [sym_cascade_section]), (STATE
       2089, 1, [sym_is_operator]), (STATE 2090, 1, [sym_as_operator]), (STATE 2135, 1,
       [aux_sym__expression_repeat1]), (ACTIONS 400, 2, [anon_sym_LT, anon_sym_GT]), (ACTIONS
       402, 2, [anon_sym_LT_EQ, anon_sym_GT_EQ]), (ACTIONS 1257, 2, [anon_sym_LBRACK,
       anon_sym_LPAREN]), (ACTIONS 1271, 2, [anon_sym_LT_LT, anon_sym_GT_GT_GT]), (ACTIONS 2344,
       2, [anon_sym_DOT_DOT, anon_sym_QMARK_DOT_DOT]), (STATE 722, 2, [sym_comment,
       sym_documentation_comment]), (ACTIONS 1277, 3, [anon_sym_BANG, anon_sym_DOT,
       anon_sym_QMARK_DOT])])]"

lemma small_run_168: "small_run 722 23439 ts_small_parse_table_168 723 23580"
  by (simp add: small_simps ts_small_parse_table_168_def)

definition ts_small_parse_table_169 :: "small_group list" where
  "ts_small_parse_table_169 = [
     (23580, 41, [(ACTIONS 3, 1, [anon_sym_SLASH_SLASH]), (ACTIONS 5, 1,
       [anon_sym_SLASH_STAR]), (ACTIONS 7, 1, [anon_sym_SLASH_SLASH_SLASH]), (ACTIONS 9, 1,
       [sym__block_comment]), (ACTIONS 11, 1, [sym__documentation_block_comment]), (ACTIONS 1273,
       1, [anon_sym_GT_GT]), (ACTIONS 1275, 1, [sym__additive_operator]), (ACTIONS 1279, 1,
       [anon_sym_is]), (ACTIONS 1286, 1, [anon_sym_AMP_AMP]), (ACTIONS 1288, 1,
       [anon_sym_PIPE_PIPE]), (ACTIONS 1416, 1, [anon_sym_async]), (ACTIONS 1448, 1,
       [anon_sym_as]), (ACTIONS 2198, 1, [anon_sym_QMARK_QMARK]), (ACTIONS 2200, 1,
       [anon_sym_QMARK]), (ACTIONS 2202, 1, [sym_equality_operator]), (ACTIONS 2204, 1,
       [anon_sym_PIPE]), (ACTIONS 2206, 1, [anon_sym_CARET]), (ACTIONS 2208, 1, [anon_sym_AMP]),
       (STATE 352, 1, [sym_logical_or_operator]), (STATE 354, 1, [sym_logical_and_operator]),
       (STATE 355, 1, [sym_additive_operator]), (STATE 363, 1, [sym_relational_operator]), (STATE
       367, 1, [sym_shift_operator]), (STATE 1397, 1, [sym__shift_operator]), (STATE 1418, 1,
       [aux_sym_shift_expression_repeat1]), (STATE 1456, 1,
       [aux_sym_logical_or_expression_repeat1]), (STATE 1457, 1,
       [aux_sym_logical_and_expression_repeat1]), (STATE 1461, 1,
       [aux_sym_additive_expression_repeat1]), (STATE 1513, 1,
       [aux_sym_bitwise_or_expression_repeat1]), (STATE 1514, 1,
       [aux_sym_bitwise_xor_expression_repeat1]), (STATE 1516, 1,
       [aux_sym_bitwise_and_expression_repeat1]), (STATE 1529, 1, [aux_sym__if_null_expression]),
       (STATE 1560, 1, [sym_type_test]), (STATE 1563, 1, [sym_type_cast]), (STATE 2086, 1,
       [sym_as_operator]), (STATE 2087, 1, [sym_is_operator]), (ACTIONS 400, 2, [anon_sym_LT,
       anon_sym_GT]), (ACTIONS 402, 2, [anon_sym_LT_EQ, anon_sym_GT_EQ]), (ACTIONS 1271, 2,
       [anon_sym_LT_LT, anon_sym_GT_GT_GT]), (STATE 723, 2, [sym_comment,
       sym_documentation_comment]), (ACTIONS 1414, 8, [anon_sym_LBRACE, anon_sym_COMMA,
       anon_sym_DOT_DOT, anon_sym_QMARK_DOT_DOT, anon_sym_SEMI, anon_sym_EQ_GT,
       anon_sym_async_STAR, anon_sym_sync_STAR])])]"

lemma small_run_169: "small_run 723 23580 ts_small_parse_table_169 724 23715"
  by (simp add: small_simps ts_small_parse_table_169_def)

definition ts_small_parse_table_170 :: "small_group list" where
  "ts_small_parse_table_170 = [
     (23715, 41, [(ACTIONS 3, 1, [anon_sym_SLASH_SLASH]), (ACTIONS 5, 1,
       [anon_sym_SLASH_STAR]), (ACTIONS 7, 1, [anon_sym_SLASH_SLASH_SLASH]), (ACTIONS 9, 1,
       [sym__block_comment]), (ACTIONS 11, 1, [sym__documentation_block_comment]), (ACTIONS 1273,
       1, [anon_sym_GT_GT]), (ACTIONS 1275, 1, [sym__additive_operator]), (ACTIONS 1279, 1,
       [anon_sym_is]), (ACTIONS 1286, 1, [anon_sym_AMP_AMP]), (ACTIONS 1288, 1,
       [anon_sym_PIPE_PIPE]), (ACTIONS 1412, 1, [anon_sym_async]), (ACTIONS 1448, 1,
       [anon_sym_as]), (ACTIONS 2198, 1, [anon_sym_QMARK_QMARK]), (ACTIONS 2200, 1,
       [anon_sym_QMARK]), (ACTIONS 2202, 1, [sym_equality_operator]), (ACTIONS 2204, 1,
       [anon_sym_PIPE]), (ACTIONS 2206, 1, [anon_sym_CARET]), (ACTIONS 2208, 1, [anon_sym_AMP]),
       (STATE 352, 1, [sym_logical_or_operator]), (STATE 354, 1, [sym_logical_and_operator]),
       (STATE 355, 1, [sym_additive_operator]), (STATE 363, 1, [sym_relational_operator]), (STATE
       367, 1, [sym_shift_operator]), (STATE 1397, 1, [sym__shift_operator]), (STATE 1418, 1,
       [aux_sym_shift_expression_repeat1]), (STATE 1456, 1,
       [aux_sym_logical_or_expression_repeat1]), (STATE 1457, 1,
       [aux_sym_logical_and_expression_repeat1]), (STATE 1461, 1,
       [aux_sym_additive_expression_repeat1]), (STATE 1513, 1,
       [aux_sym_bitwise_or_expression_repeat1]), (STATE 1514, 1,
       [aux_sym_bitwise_xor_expression_repeat1]), (STATE 1516, 1,
       [aux_sym_bitwise_and_expression_repeat1]), (STATE 1529, 1, [aux_sym__if_null_expression]),
       (STATE 1560, 1, [sym_type_test]), (STATE 1563, 1, [sym_type_cast]), (STATE 2086, 1,
       [sym_as_operator]), (STATE 2087, 1, [sym_is_operator]), (ACTIONS 400, 2, [anon_sym_LT,
       anon_sym_GT]), (ACTIONS 402, 2, [anon_sym_LT_EQ, anon_sym_GT_EQ]), (ACTIONS 1271, 2,
       [anon_sym_LT_LT, anon_sym_GT_GT_GT]), (STATE 724, 2, [sym_comment,
       sym_documentation_comment]), (ACTIONS 1410, 8, [anon_sym_LBRACE, anon_sym_COMMA,
       anon_sym_DOT_DOT, anon_sym_QMARK_DOT_DOT, anon_sym_SEMI, anon_sym_EQ_GT,
       anon_sym_async_STAR, anon_sym_sync_STAR])])]"

lemma small_run_170: "small_run 724 23715 ts_small_parse_table_170 725 23850"
  by (simp add: small_simps ts_small_parse_table_170_def)

definition ts_small_parse_table_171 :: "small_group list" where
  "ts_small_parse_table_171 = [
     (23850, 41, [(ACTIONS 3, 1, [anon_sym_SLASH_SLASH]), (ACTIONS 5, 1,
       [anon_sym_SLASH_STAR]), (ACTIONS 7, 1, [anon_sym_SLASH_SLASH_SLASH]), (ACTIONS 9, 1,
       [sym__block_comment]), (ACTIONS 11, 1, [sym__documentation_block_comment]), (ACTIONS 1273,
       1, [anon_sym_GT_GT]), (ACTIONS 1275, 1, [sym__additive_operator]), (ACTIONS 1279, 1,
       [anon_sym_is]), (ACTIONS 1286, 1, [anon_sym_AMP_AMP]), (ACTIONS 1288, 1,
       [anon_sym_PIPE_PIPE]), (ACTIONS 1397, 1, [anon_sym_async]), (ACTIONS 1448, 1,
       [anon_sym_as]), (ACTIONS 2198, 1, [anon_sym_QMARK_QMARK]), (ACTIONS 2200, 1,
       [anon_sym_QMARK]), (ACTIONS 2202, 1, [sym_equality_operator]), (ACTIONS 2204, 1,
       [anon_sym_PIPE]), (ACTIONS 2206, 1, [anon_sym_CARET]), (ACTIONS 2208, 1, [anon_sym_AMP]),
       (STATE 352, 1, [sym_logical_or_operator]), (STATE 354, 1, [sym_logical_and_operator]),
       (STATE 355, 1, [sym_additive_operator]), (STATE 363, 1, [sym_relational_operator]), (STATE
       367, 1, [sym_shift_operator]), (STATE 1397, 1, [sym__shift_operator]), (STATE 1418, 1,
       [aux_sym_shift_expression_repeat1]), (STATE 1456, 1,
       [aux_sym_logical_or_expression_repeat1]), (STATE 1457, 1,
       [aux_sym_logical_and_expression_repeat1]), (STATE 1461, 1,
       [aux_sym_additive_expression_repeat1]), (STATE 1513, 1,
       [aux_sym_bitwise_or_expression_repeat1]), (STATE 1514, 1,
       [aux_sym_bitwise_xor_expression_repeat1]), (STATE 1516, 1,
       [aux_sym_bitwise_and_expression_repeat1]), (STATE 1529, 1, [aux_sym__if_null_expression]),
       (STATE 1560, 1, [sym_type_test]), (STATE 1563, 1, [sym_type_cast]), (STATE 2086, 1,
       [sym_as_operator]), (STATE 2087, 1, [sym_is_operator]), (ACTIONS 400, 2, [anon_sym_LT,
       anon_sym_GT]), (ACTIONS 402, 2, [anon_sym_LT_EQ, anon_sym_GT_EQ]), (ACTIONS 1271, 2,
       [anon_sym_LT_LT, anon_sym_GT_GT_GT]), (STATE 725, 2, [sym_comment,
       sym_documentation_comment]), (ACTIONS 1395, 8, [anon_sym_LBRACE, anon_sym_COMMA,
       anon_sym_DOT_DOT, anon_sym_QMARK_DOT_DOT, anon_sym_SEMI, anon_sym_EQ_GT,
       anon_sym_async_STAR, anon_sym_sync_STAR])])]"

lemma small_run_171: "small_run 725 23850 ts_small_parse_table_171 726 23985"
  by (simp add: small_simps ts_small_parse_table_171_def)

definition ts_small_parse_table_172 :: "small_group list" where
  "ts_small_parse_table_172 = [
     (23985, 41, [(ACTIONS 3, 1, [anon_sym_SLASH_SLASH]), (ACTIONS 5, 1,
       [anon_sym_SLASH_STAR]), (ACTIONS 7, 1, [anon_sym_SLASH_SLASH_SLASH]), (ACTIONS 9, 1,
       [sym__block_comment]), (ACTIONS 11, 1, [sym__documentation_block_comment]), (ACTIONS 1273,
       1, [anon_sym_GT_GT]), (ACTIONS 1275, 1, [sym__additive_operator]), (ACTIONS 1279, 1,
       [anon_sym_is]), (ACTIONS 1286, 1, [anon_sym_AMP_AMP]), (ACTIONS 1288, 1,
       [anon_sym_PIPE_PIPE]), (ACTIONS 1383, 1, [anon_sym_async]), (ACTIONS 1448, 1,
       [anon_sym_as]), (ACTIONS 2198, 1, [anon_sym_QMARK_QMARK]), (ACTIONS 2200, 1,
       [anon_sym_QMARK]), (ACTIONS 2202, 1, [sym_equality_operator]), (ACTIONS 2204, 1,
       [anon_sym_PIPE]), (ACTIONS 2206, 1, [anon_sym_CARET]), (ACTIONS 2208, 1, [anon_sym_AMP]),
       (STATE 352, 1, [sym_logical_or_operator]), (STATE 354, 1, [sym_logical_and_operator]),
       (STATE 355, 1, [sym_additive_operator]), (STATE 363, 1, [sym_relational_operator]), (STATE
       367, 1, [sym_shift_operator]), (STATE 1397, 1, [sym__shift_operator]), (STATE 1418, 1,
       [aux_sym_shift_expression_repeat1]), (STATE 1456, 1,
       [aux_sym_logical_or_expression_repeat1]), (STATE 1457, 1,
       [aux_sym_logical_and_expression_repeat1]), (STATE 1461, 1,
       [aux_sym_additive_expression_repeat1]), (STATE 1513, 1,
       [aux_sym_bitwise_or_expression_repeat1]), (STATE 1514, 1,
       [aux_sym_bitwise_xor_expression_repeat1]), (STATE 1516, 1,
       [aux_sym_bitwise_and_expression_repeat1]), (STATE 1529, 1, [aux_sym__if_null_expression]),
       (STATE 1560, 1, [sym_type_test]), (STATE 1563, 1, [sym_type_cast]), (STATE 2086, 1,
       [sym_as_operator]), (STATE 2087, 1, [sym_is_operator]), (ACTIONS 400, 2, [anon_sym_LT,
       anon_sym_GT]), (ACTIONS 402, 2, [anon_sym_LT_EQ, anon_sym_GT_EQ]), (ACTIONS 1271, 2,
       [anon_sym_LT_LT, anon_sym_GT_GT_GT]), (STATE 726, 2, [sym_comment,
       sym_documentation_comment]), (ACTIONS 1381, 8, [anon_sym_LBRACE, anon_sym_COMMA,
       anon_sym_DOT_DOT, anon_sym_QMARK_DOT_DOT, anon_sym_SEMI, anon_sym_EQ_GT,
       anon_sym_async_STAR, anon_sym_sync_STAR])])]"

lemma small_run_172: "small_run 726 23985 ts_small_parse_table_172 727 24120"
  by (simp add: small_simps ts_small_parse_table_172_def)

definition ts_small_parse_table_173 :: "small_group list" where
  "ts_small_parse_table_173 = [
     (24120, 41, [(ACTIONS 3, 1, [anon_sym_SLASH_SLASH]), (ACTIONS 5, 1,
       [anon_sym_SLASH_STAR]), (ACTIONS 7, 1, [anon_sym_SLASH_SLASH_SLASH]), (ACTIONS 9, 1,
       [sym__block_comment]), (ACTIONS 11, 1, [sym__documentation_block_comment]), (ACTIONS 1273,
       1, [anon_sym_GT_GT]), (ACTIONS 1275, 1, [sym__additive_operator]), (ACTIONS 1279, 1,
       [anon_sym_is]), (ACTIONS 1286, 1, [anon_sym_AMP_AMP]), (ACTIONS 1288, 1,
       [anon_sym_PIPE_PIPE]), (ACTIONS 1434, 1, [anon_sym_async]), (ACTIONS 1448, 1,
       [anon_sym_as]), (ACTIONS 2198, 1, [anon_sym_QMARK_QMARK]), (ACTIONS 2200, 1,
       [anon_sym_QMARK]), (ACTIONS 2202, 1, [sym_equality_operator]), (ACTIONS 2204, 1,
       [anon_sym_PIPE]), (ACTIONS 2206, 1, [anon_sym_CARET]), (ACTIONS 2208, 1, [anon_sym_AMP]),
       (STATE 352, 1, [sym_logical_or_operator]), (STATE 354, 1, [sym_logical_and_operator]),
       (STATE 355, 1, [sym_additive_operator]), (STATE 363, 1, [sym_relational_operator]), (STATE
       367, 1, [sym_shift_operator]), (STATE 1397, 1, [sym__shift_operator]), (STATE 1418, 1,
       [aux_sym_shift_expression_repeat1]), (STATE 1456, 1,
       [aux_sym_logical_or_expression_repeat1]), (STATE 1457, 1,
       [aux_sym_logical_and_expression_repeat1]), (STATE 1461, 1,
       [aux_sym_additive_expression_repeat1]), (STATE 1513, 1,
       [aux_sym_bitwise_or_expression_repeat1]), (STATE 1514, 1,
       [aux_sym_bitwise_xor_expression_repeat1]), (STATE 1516, 1,
       [aux_sym_bitwise_and_expression_repeat1]), (STATE 1529, 1, [aux_sym__if_null_expression]),
       (STATE 1560, 1, [sym_type_test]), (STATE 1563, 1, [sym_type_cast]), (STATE 2086, 1,
       [sym_as_operator]), (STATE 2087, 1, [sym_is_operator]), (ACTIONS 400, 2, [anon_sym_LT,
       anon_sym_GT]), (ACTIONS 402, 2, [anon_sym_LT_EQ, anon_sym_GT_EQ]), (ACTIONS 1271, 2,
       [anon_sym_LT_LT, anon_sym_GT_GT_GT]), (STATE 727, 2, [sym_comment,
       sym_documentation_comment]), (ACTIONS 1432, 8, [anon_sym_LBRACE, anon_sym_COMMA,
       anon_sym_DOT_DOT, anon_sym_QMARK_DOT_DOT, anon_sym_SEMI, anon_sym_EQ_GT,
       anon_sym_async_STAR, anon_sym_sync_STAR])])]"

lemma small_run_173: "small_run 727 24120 ts_small_parse_table_173 728 24255"
  by (simp add: small_simps ts_small_parse_table_173_def)

definition ts_small_parse_table_174 :: "small_group list" where
  "ts_small_parse_table_174 = [
     (24255, 24, [(ACTIONS 3, 1, [anon_sym_SLASH_SLASH]), (ACTIONS 5, 1,
       [anon_sym_SLASH_STAR]), (ACTIONS 7, 1, [anon_sym_SLASH_SLASH_SLASH]), (ACTIONS 9, 1,
       [sym__block_comment]), (ACTIONS 11, 1, [sym__documentation_block_comment]), (ACTIONS 2302,
       1, [anon_sym_LPAREN]), (ACTIONS 2310, 1, [anon_sym_BANG]), (ACTIONS 2318, 1,
       [anon_sym_LT]), (ACTIONS 2320, 1, [anon_sym_LBRACK]), (ACTIONS 2325, 1, [anon_sym_DOT]),
       (ACTIONS 2327, 1, [anon_sym_QMARK_DOT]), (ACTIONS 2346, 1, [anon_sym_QMARK]), (STATE 742,
       1, [aux_sym__assignable_selector_part_repeat1]), (STATE 1202, 1, [sym_type_arguments]),
       (STATE 1209, 1, [sym__assignable_selector]), (STATE 1211, 1, [sym_index_selector]), (STATE
       1253, 1, [sym_arguments]), (STATE 1256, 1, [sym_selector]), (STATE 1990, 1,
       [sym__assignable_selector_part]), (STATE 728, 2, [sym_comment,
       sym_documentation_comment]), (STATE 1210, 2, [sym_unconditional_assignable_selector,
       sym_conditional_assignable_selector]), (STATE 1255, 2, [sym__exclamation_operator,
       sym_argument_part]), (ACTIONS 2007, 5, [anon_sym_GT, anon_sym_PIPE, anon_sym_AMP,
       anon_sym_GT_GT, anon_sym_SLASH]), (ACTIONS 1997, 22, [anon_sym_RBRACE, anon_sym_COMMA,
       anon_sym_RBRACK, anon_sym_COLON, anon_sym_RPAREN, anon_sym_QMARK_QMARK,
       sym_equality_operator, anon_sym_LT_EQ, anon_sym_GT_EQ, anon_sym_CARET, anon_sym_LT_LT,
       anon_sym_GT_GT_GT, sym__additive_operator, anon_sym_STAR, anon_sym_PERCENT,
       anon_sym_TILDE_SLASH, anon_sym_is, anon_sym_as, anon_sym_EQ_GT, anon_sym_when,
       anon_sym_AMP_AMP, anon_sym_PIPE_PIPE])]),
     (24356, 8, [(ACTIONS 3, 1, [anon_sym_SLASH_SLASH]), (ACTIONS 5, 1, [anon_sym_SLASH_STAR]),
       (ACTIONS 7, 1, [anon_sym_SLASH_SLASH_SLASH]), (ACTIONS 9, 1, [sym__block_comment]),
       (ACTIONS 11, 1, [sym__documentation_block_comment]), (STATE 729, 2, [sym_comment,
       sym_documentation_comment]), (ACTIONS 1961, 16, [anon_sym_DQUOTE, anon_sym_SQUOTE,
       anon_sym_r_DQUOTE, anon_sym_r_SQUOTE, anon_sym_QMARK, anon_sym_LT, anon_sym_GT,
       anon_sym_PIPE, anon_sym_AMP, anon_sym_GT_GT, anon_sym_SLASH, anon_sym_BANG, anon_sym_as,
       anon_sym_DOT, anon_sym_QMARK_DOT, anon_sym_async]), (ACTIONS 1963, 28,
       [anon_sym_DQUOTE_DQUOTE_DQUOTE, anon_sym_SQUOTE_SQUOTE_SQUOTE,
       anon_sym_r_DQUOTE_DQUOTE_DQUOTE, anon_sym_r_SQUOTE_SQUOTE_SQUOTE, anon_sym_LBRACE,
       anon_sym_LBRACK, anon_sym_COMMA, anon_sym_LPAREN, anon_sym_QMARK_QMARK,
       sym_equality_operator, anon_sym_LT_EQ, anon_sym_GT_EQ, anon_sym_CARET, anon_sym_LT_LT,
       anon_sym_GT_GT_GT, sym__additive_operator, anon_sym_STAR, anon_sym_PERCENT,
       anon_sym_TILDE_SLASH, anon_sym_is, anon_sym_DOT_DOT, anon_sym_QMARK_DOT_DOT,
       anon_sym_SEMI, anon_sym_EQ_GT, anon_sym_async_STAR, anon_sym_sync_STAR, anon_sym_AMP_AMP,
       anon_sym_PIPE_PIPE])])]"

lemma small_run_174: "small_run 728 24255 ts_small_parse_table_174 730 24424"
  by (simp add: small_simps ts_small_parse_table_174_def)

definition ts_small_parse_table_175 :: "small_group list" where
  "ts_small_parse_table_175 = [
     (24424, 8, [(ACTIONS 3, 1, [anon_sym_SLASH_SLASH]), (ACTIONS 5, 1, [anon_sym_SLASH_STAR]),
       (ACTIONS 7, 1, [anon_sym_SLASH_SLASH_SLASH]), (ACTIONS 9, 1, [sym__block_comment]),
       (ACTIONS 11, 1, [sym__documentation_block_comment]), (STATE 730, 2, [sym_comment,
       sym_documentation_comment]), (ACTIONS 1985, 16, [anon_sym_DQUOTE, anon_sym_SQUOTE,
       anon_sym_r_DQUOTE, anon_sym_r_SQUOTE, anon_sym_QMARK, anon_sym_LT, anon_sym_GT,
       anon_sym_PIPE, anon_sym_AMP, anon_sym_GT_GT, anon_sym_SLASH, anon_sym_BANG, anon_sym_as,
       anon_sym_DOT, anon_sym_QMARK_DOT, anon_sym_async]), (ACTIONS 1987, 28,
       [anon_sym_DQUOTE_DQUOTE_DQUOTE, anon_sym_SQUOTE_SQUOTE_SQUOTE,
       anon_sym_r_DQUOTE_DQUOTE_DQUOTE, anon_sym_r_SQUOTE_SQUOTE_SQUOTE, anon_sym_LBRACE,
       anon_sym_LBRACK, anon_sym_COMMA, anon_sym_LPAREN, anon_sym_QMARK_QMARK,
       sym_equality_operator, anon_sym_LT_EQ, anon_sym_GT_EQ, anon_sym_CARET, anon_sym_LT_LT,
       anon_sym_GT_GT_GT, sym__additive_operator, anon_sym_STAR, anon_sym_PERCENT,
       anon_sym_TILDE_SLASH, anon_sym_is, anon_sym_DOT_DOT, anon_sym_QMARK_DOT_DOT,
       anon_sym_SEMI, anon_sym_EQ_GT, anon_sym_async_STAR, anon_sym_sync_STAR, anon_sym_AMP_AMP,
       anon_sym_PIPE_PIPE])]),
     (24492, 8, [(ACTIONS 3, 1, [anon_sym_SLASH_SLASH]), (ACTIONS 5, 1, [anon_sym_SLASH_STAR]),
       (ACTIONS 7, 1, [anon_sym_SLASH_SLASH_SLASH]), (ACTIONS 9, 1, [sym__block_comment]),
       (ACTIONS 11, 1, [sym__documentation_block_comment]), (STATE 731, 2, [sym_comment,
       sym_documentation_comment]), (ACTIONS 1953, 16, [anon_sym_DQUOTE, anon_sym_SQUOTE,
       anon_sym_r_DQUOTE, anon_sym_r_SQUOTE, anon_sym_QMARK, anon_sym_LT, anon_sym_GT,
       anon_sym_PIPE, anon_sym_AMP, anon_sym_GT_GT, anon_sym_SLASH, anon_sym_BANG, anon_sym_as,
       anon_sym_DOT, anon_sym_QMARK_DOT, anon_sym_async]), (ACTIONS 1955, 28,
       [anon_sym_DQUOTE_DQUOTE_DQUOTE, anon_sym_SQUOTE_SQUOTE_SQUOTE,
       anon_sym_r_DQUOTE_DQUOTE_DQUOTE, anon_sym_r_SQUOTE_SQUOTE_SQUOTE, anon_sym_LBRACE,
       anon_sym_LBRACK, anon_sym_COMMA, anon_sym_LPAREN, anon_sym_QMARK_QMARK,
       sym_equality_operator, anon_sym_LT_EQ, anon_sym_GT_EQ, anon_sym_CARET, anon_sym_LT_LT,
       anon_sym_GT_GT_GT, sym__additive_operator, anon_sym_STAR, anon_sym_PERCENT,
       anon_sym_TILDE_SLASH, anon_sym_is, anon_sym_DOT_DOT, anon_sym_QMARK_DOT_DOT,
       anon_sym_SEMI, anon_sym_EQ_GT, anon_sym_async_STAR, anon_sym_sync_STAR, anon_sym_AMP_AMP,
       anon_sym_PIPE_PIPE])])]"

lemma small_run_175: "small_run 730 24424 ts_small_parse_table_175 732 24560"
  by (simp add: small_simps ts_small_parse_table_175_def)

definition ts_small_parse_table_176 :: "small_group list" where
  "ts_small_parse_table_176 = [
     (24560, 8, [(ACTIONS 3, 1, [anon_sym_SLASH_SLASH]), (ACTIONS 5, 1, [anon_sym_SLASH_STAR]),
       (ACTIONS 7, 1, [anon_sym_SLASH_SLASH_SLASH]), (ACTIONS 9, 1, [sym__block_comment]),
       (ACTIONS 11, 1, [sym__documentation_block_comment]), (STATE 732, 2, [sym_comment,
       sym_documentation_comment]), (ACTIONS 1889, 16, [anon_sym_DQUOTE, anon_sym_SQUOTE,
       anon_sym_r_DQUOTE, anon_sym_r_SQUOTE, anon_sym_QMARK, anon_sym_LT, anon_sym_GT,
       anon_sym_PIPE, anon_sym_AMP, anon_sym_GT_GT, anon_sym_SLASH, anon_sym_BANG, anon_sym_as,
       anon_sym_DOT, anon_sym_QMARK_DOT, anon_sym_async]), (ACTIONS 1891, 28,
       [anon_sym_DQUOTE_DQUOTE_DQUOTE, anon_sym_SQUOTE_SQUOTE_SQUOTE,
       anon_sym_r_DQUOTE_DQUOTE_DQUOTE, anon_sym_r_SQUOTE_SQUOTE_SQUOTE, anon_sym_LBRACE,
       anon_sym_LBRACK, anon_sym_COMMA, anon_sym_LPAREN, anon_sym_QMARK_QMARK,
       sym_equality_operator, anon_sym_LT_EQ, anon_sym_GT_EQ, anon_sym_CARET, anon_sym_LT_LT,
       anon_sym_GT_GT_GT, sym__additive_operator, anon_sym_STAR, anon_sym_PERCENT,
       anon_sym_TILDE_SLASH, anon_sym_is, anon_sym_DOT_DOT, anon_sym_QMARK_DOT_DOT,
       anon_sym_SEMI, anon_sym_EQ_GT, anon_sym_async_STAR, anon_sym_sync_STAR, anon_sym_AMP_AMP,
       anon_sym_PIPE_PIPE])]),
     (24628, 8, [(ACTIONS 3, 1, [anon_sym_SLASH_SLASH]), (ACTIONS 5, 1, [anon_sym_SLASH_STAR]),
       (ACTIONS 7, 1, [anon_sym_SLASH_SLASH_SLASH]), (ACTIONS 9, 1, [sym__block_comment]),
       (ACTIONS 11, 1, [sym__documentation_block_comment]), (STATE 733, 2, [sym_comment,
       sym_documentation_comment]), (ACTIONS 1965, 16, [anon_sym_DQUOTE, anon_sym_SQUOTE,
       anon_sym_r_DQUOTE, anon_sym_r_SQUOTE, anon_sym_QMARK, anon_sym_LT, anon_sym_GT,
       anon_sym_PIPE, anon_sym_AMP, anon_sym_GT_GT, anon_sym_SLASH, anon_sym_BANG, anon_sym_as,
       anon_sym_DOT, anon_sym_QMARK_DOT, anon_sym_async]), (ACTIONS 1967, 28,
       [anon_sym_DQUOTE_DQUOTE_DQUOTE, anon_sym_SQUOTE_SQUOTE_SQUOTE,
       anon_sym_r_DQUOTE_DQUOTE_DQUOTE, anon_sym_r_SQUOTE_SQUOTE_SQUOTE, anon_sym_LBRACE,
       anon_sym_LBRACK, anon_sym_COMMA, anon_sym_LPAREN, anon_sym_QMARK_QMARK,
       sym_equality_operator, anon_sym_LT_EQ, anon_sym_GT_EQ, anon_sym_CARET, anon_sym_LT_LT,
       anon_sym_GT_GT_GT, sym__additive_operator, anon_sym_STAR, anon_sym_PERCENT,
       anon_sym_TILDE_SLASH, anon_sym_is, anon_sym_DOT_DOT, anon_sym_QMARK_DOT_DOT,
       anon_sym_SEMI, anon_sym_EQ_GT, anon_sym_async_STAR, anon_sym_sync_STAR, anon_sym_AMP_AMP,
       anon_sym_PIPE_PIPE])])]"

lemma small_run_176: "small_run 732 24560 ts_small_parse_table_176 734 24696"
  by (simp add: small_simps ts_small_parse_table_176_def)

definition ts_small_parse_table_177 :: "small_group list" where
  "ts_small_parse_table_177 = [
     (24696, 8, [(ACTIONS 3, 1, [anon_sym_SLASH_SLASH]), (ACTIONS 5, 1, [anon_sym_SLASH_STAR]),
       (ACTIONS 7, 1, [anon_sym_SLASH_SLASH_SLASH]), (ACTIONS 9, 1, [sym__block_comment]),
       (ACTIONS 11, 1, [sym__documentation_block_comment]), (STATE 734, 2, [sym_comment,
       sym_documentation_comment]), (ACTIONS 1921, 16, [anon_sym_DQUOTE, anon_sym_SQUOTE,
       anon_sym_r_DQUOTE, anon_sym_r_SQUOTE, anon_sym_QMARK, anon_sym_LT, anon_sym_GT,
       anon_sym_PIPE, anon_sym_AMP, anon_sym_GT_GT, anon_sym_SLASH, anon_sym_BANG, anon_sym_as,
       anon_sym_DOT, anon_sym_QMARK_DOT, anon_sym_async]), (ACTIONS 1923, 28,
       [anon_sym_DQUOTE_DQUOTE_DQUOTE, anon_sym_SQUOTE_SQUOTE_SQUOTE,
       anon_sym_r_DQUOTE_DQUOTE_DQUOTE, anon_sym_r_SQUOTE_SQUOTE_SQUOTE, anon_sym_LBRACE,
       anon_sym_LBRACK, anon_sym_COMMA, anon_sym_LPAREN, anon_sym_QMARK_QMARK,
       sym_equality_operator, anon_sym_LT_EQ, anon_sym_GT_EQ, anon_sym_CARET, anon_sym_LT_LT,
       anon_sym_GT_GT_GT, sym__additive_operator, anon_sym_STAR, anon_sym_PERCENT,
       anon_sym_TILDE_SLASH, anon_sym_is, anon_sym_DOT_DOT, anon_sym_QMARK_DOT_DOT,
       anon_sym_SEMI, anon_sym_EQ_GT, anon_sym_async_STAR, anon_sym_sync_STAR, anon_sym_AMP_AMP,
       anon_sym_PIPE_PIPE])]),
     (24764, 8, [(ACTIONS 3, 1, [anon_sym_SLASH_SLASH]), (ACTIONS 5, 1, [anon_sym_SLASH_STAR]),
       (ACTIONS 7, 1, [anon_sym_SLASH_SLASH_SLASH]), (ACTIONS 9, 1, [sym__block_comment]),
       (ACTIONS 11, 1, [sym__documentation_block_comment]), (STATE 735, 2, [sym_comment,
       sym_documentation_comment]), (ACTIONS 1925, 16, [anon_sym_DQUOTE, anon_sym_SQUOTE,
       anon_sym_r_DQUOTE, anon_sym_r_SQUOTE, anon_sym_QMARK, anon_sym_LT, anon_sym_GT,
       anon_sym_PIPE, anon_sym_AMP, anon_sym_GT_GT, anon_sym_SLASH, anon_sym_BANG, anon_sym_as,
       anon_sym_DOT, anon_sym_QMARK_DOT, anon_sym_async]), (ACTIONS 1927, 28,
       [anon_sym_DQUOTE_DQUOTE_DQUOTE, anon_sym_SQUOTE_SQUOTE_SQUOTE,
       anon_sym_r_DQUOTE_DQUOTE_DQUOTE, anon_sym_r_SQUOTE_SQUOTE_SQUOTE, anon_sym_LBRACE,
       anon_sym_LBRACK, anon_sym_COMMA, anon_sym_LPAREN, anon_sym_QMARK_QMARK,
       sym_equality_operator, anon_sym_LT_EQ, anon_sym_GT_EQ, anon_sym_CARET, anon_sym_LT_LT,
       anon_sym_GT_GT_GT, sym__additive_operator, anon_sym_STAR, anon_sym_PERCENT,
       anon_sym_TILDE_SLASH, anon_sym_is, anon_sym_DOT_DOT, anon_sym_QMARK_DOT_DOT,
       anon_sym_SEMI, anon_sym_EQ_GT, anon_sym_async_STAR, anon_sym_sync_STAR, anon_sym_AMP_AMP,
       anon_sym_PIPE_PIPE])])]"

lemma small_run_177: "small_run 734 24696 ts_small_parse_table_177 736 24832"
  by (simp add: small_simps ts_small_parse_table_177_def)

definition ts_small_parse_table_178 :: "small_group list" where
  "ts_small_parse_table_178 = [
     (24832, 8, [(ACTIONS 3, 1, [anon_sym_SLASH_SLASH]), (ACTIONS 5, 1, [anon_sym_SLASH_STAR]),
       (ACTIONS 7, 1, [anon_sym_SLASH_SLASH_SLASH]), (ACTIONS 9, 1, [sym__block_comment]),
       (ACTIONS 11, 1, [sym__documentation_block_comment]), (STATE 736, 2, [sym_comment,
       sym_documentation_comment]), (ACTIONS 1957, 16, [anon_sym_DQUOTE, anon_sym_SQUOTE,
       anon_sym_r_DQUOTE, anon_sym_r_SQUOTE, anon_sym_QMARK, anon_sym_LT, anon_sym_GT,
       anon_sym_PIPE, anon_sym_AMP, anon_sym_GT_GT, anon_sym_SLASH, anon_sym_BANG, anon_sym_as,
       anon_sym_DOT, anon_sym_QMARK_DOT, anon_sym_async]), (ACTIONS 1959, 28,
       [anon_sym_DQUOTE_DQUOTE_DQUOTE, anon_sym_SQUOTE_SQUOTE_SQUOTE,
       anon_sym_r_DQUOTE_DQUOTE_DQUOTE, anon_sym_r_SQUOTE_SQUOTE_SQUOTE, anon_sym_LBRACE,
       anon_sym_LBRACK, anon_sym_COMMA, anon_sym_LPAREN, anon_sym_QMARK_QMARK,
       sym_equality_operator, anon_sym_LT_EQ, anon_sym_GT_EQ, anon_sym_CARET, anon_sym_LT_LT,
       anon_sym_GT_GT_GT, sym__additive_operator, anon_sym_STAR, anon_sym_PERCENT,
       anon_sym_TILDE_SLASH, anon_sym_is, anon_sym_DOT_DOT, anon_sym_QMARK_DOT_DOT,
       anon_sym_SEMI, anon_sym_EQ_GT, anon_sym_async_STAR, anon_sym_sync_STAR, anon_sym_AMP_AMP,
       anon_sym_PIPE_PIPE])]),
     (24900, 8, [(ACTIONS 3, 1, [anon_sym_SLASH_SLASH]), (ACTIONS 5, 1, [anon_sym_SLASH_STAR]),
       (ACTIONS 7, 1, [anon_sym_SLASH_SLASH_SLASH]), (ACTIONS 9, 1, [sym__block_comment]),
       (ACTIONS 11, 1, [sym__documentation_block_comment]), (STATE 737, 2, [sym_comment,
       sym_documentation_comment]), (ACTIONS 1929, 16, [anon_sym_DQUOTE, anon_sym_SQUOTE,
       anon_sym_r_DQUOTE, anon_sym_r_SQUOTE, anon_sym_QMARK, anon_sym_LT, anon_sym_GT,
       anon_sym_PIPE, anon_sym_AMP, anon_sym_GT_GT, anon_sym_SLASH, anon_sym_BANG, anon_sym_as,
       anon_sym_DOT, anon_sym_QMARK_DOT, anon_sym_async]), (ACTIONS 1931, 28,
       [anon_sym_DQUOTE_DQUOTE_DQUOTE, anon_sym_SQUOTE_SQUOTE_SQUOTE,
       anon_sym_r_DQUOTE_DQUOTE_DQUOTE, anon_sym_r_SQUOTE_SQUOTE_SQUOTE, anon_sym_LBRACE,
       anon_sym_LBRACK, anon_sym_COMMA, anon_sym_LPAREN, anon_sym_QMARK_QMARK,
       sym_equality_operator, anon_sym_LT_EQ, anon_sym_GT_EQ, anon_sym_CARET, anon_sym_LT_LT,
       anon_sym_GT_GT_GT, sym__additive_operator, anon_sym_STAR, anon_sym_PERCENT,
       anon_sym_TILDE_SLASH, anon_sym_is, anon_sym_DOT_DOT, anon_sym_QMARK_DOT_DOT,
       anon_sym_SEMI, anon_sym_EQ_GT, anon_sym_async_STAR, anon_sym_sync_STAR, anon_sym_AMP_AMP,
       anon_sym_PIPE_PIPE])])]"

lemma small_run_178: "small_run 736 24832 ts_small_parse_table_178 738 24968"
  by (simp add: small_simps ts_small_parse_table_178_def)

definition ts_small_parse_table_179 :: "small_group list" where
  "ts_small_parse_table_179 = [
     (24968, 8, [(ACTIONS 3, 1, [anon_sym_SLASH_SLASH]), (ACTIONS 5, 1, [anon_sym_SLASH_STAR]),
       (ACTIONS 7, 1, [anon_sym_SLASH_SLASH_SLASH]), (ACTIONS 9, 1, [sym__block_comment]),
       (ACTIONS 11, 1, [sym__documentation_block_comment]), (STATE 738, 2, [sym_comment,
       sym_documentation_comment]), (ACTIONS 1969, 16, [anon_sym_DQUOTE, anon_sym_SQUOTE,
       anon_sym_r_DQUOTE, anon_sym_r_SQUOTE, anon_sym_QMARK, anon_sym_LT, anon_sym_GT,
       anon_sym_PIPE, anon_sym_AMP, anon_sym_GT_GT, anon_sym_SLASH, anon_sym_BANG, anon_sym_as,
       anon_sym_DOT, anon_sym_QMARK_DOT, anon_sym_async]), (ACTIONS 1971, 28,
       [anon_sym_DQUOTE_DQUOTE_DQUOTE, anon_sym_SQUOTE_SQUOTE_SQUOTE,
       anon_sym_r_DQUOTE_DQUOTE_DQUOTE, anon_sym_r_SQUOTE_SQUOTE_SQUOTE, anon_sym_LBRACE,
       anon_sym_LBRACK, anon_sym_COMMA, anon_sym_LPAREN, anon_sym_QMARK_QMARK,
       sym_equality_operator, anon_sym_LT_EQ, anon_sym_GT_EQ, anon_sym_CARET, anon_sym_LT_LT,
       anon_sym_GT_GT_GT, sym__additive_operator, anon_sym_STAR, anon_sym_PERCENT,
       anon_sym_TILDE_SLASH, anon_sym_is, anon_sym_DOT_DOT, anon_sym_QMARK_DOT_DOT,
       anon_sym_SEMI, anon_sym_EQ_GT, anon_sym_async_STAR, anon_sym_sync_STAR, anon_sym_AMP_AMP,
       anon_sym_PIPE_PIPE])]),
     (25036, 8, [(ACTIONS 3, 1, [anon_sym_SLASH_SLASH]), (ACTIONS 5, 1, [anon_sym_SLASH_STAR]),
       (ACTIONS 7, 1, [anon_sym_SLASH_SLASH_SLASH]), (ACTIONS 9, 1, [sym__block_comment]),
       (ACTIONS 11, 1, [sym__documentation_block_comment]), (STATE 739, 2, [sym_comment,
       sym_documentation_comment]), (ACTIONS 1945, 16, [anon_sym_DQUOTE, anon_sym_SQUOTE,
       anon_sym_r_DQUOTE, anon_sym_r_SQUOTE, anon_sym_QMARK, anon_sym_LT, anon_sym_GT,
       anon_sym_PIPE, anon_sym_AMP, anon_sym_GT_GT, anon_sym_SLASH, anon_sym_BANG, anon_sym_as,
       anon_sym_DOT, anon_sym_QMARK_DOT, anon_sym_async]), (ACTIONS 1947, 28,
       [anon_sym_DQUOTE_DQUOTE_DQUOTE, anon_sym_SQUOTE_SQUOTE_SQUOTE,
       anon_sym_r_DQUOTE_DQUOTE_DQUOTE, anon_sym_r_SQUOTE_SQUOTE_SQUOTE, anon_sym_LBRACE,
       anon_sym_LBRACK, anon_sym_COMMA, anon_sym_LPAREN, anon_sym_QMARK_QMARK,
       sym_equality_operator, anon_sym_LT_EQ, anon_sym_GT_EQ, anon_sym_CARET, anon_sym_LT_LT,
       anon_sym_GT_GT_GT, sym__additive_operator, anon_sym_STAR, anon_sym_PERCENT,
       anon_sym_TILDE_SLASH, anon_sym_is, anon_sym_DOT_DOT, anon_sym_QMARK_DOT_DOT,
       anon_sym_SEMI, anon_sym_EQ_GT, anon_sym_async_STAR, anon_sym_sync_STAR, anon_sym_AMP_AMP,
       anon_sym_PIPE_PIPE])])]"

lemma small_run_179: "small_run 738 24968 ts_small_parse_table_179 740 25104"
  by (simp add: small_simps ts_small_parse_table_179_def)

definition ts_small_parse_table_180 :: "small_group list" where
  "ts_small_parse_table_180 = [
     (25104, 8, [(ACTIONS 3, 1, [anon_sym_SLASH_SLASH]), (ACTIONS 5, 1, [anon_sym_SLASH_STAR]),
       (ACTIONS 7, 1, [anon_sym_SLASH_SLASH_SLASH]), (ACTIONS 9, 1, [sym__block_comment]),
       (ACTIONS 11, 1, [sym__documentation_block_comment]), (STATE 740, 2, [sym_comment,
       sym_documentation_comment]), (ACTIONS 1917, 16, [anon_sym_DQUOTE, anon_sym_SQUOTE,
       anon_sym_r_DQUOTE, anon_sym_r_SQUOTE, anon_sym_QMARK, anon_sym_LT, anon_sym_GT,
       anon_sym_PIPE, anon_sym_AMP, anon_sym_GT_GT, anon_sym_SLASH, anon_sym_BANG, anon_sym_as,
       anon_sym_DOT, anon_sym_QMARK_DOT, anon_sym_async]), (ACTIONS 1919, 28,
       [anon_sym_DQUOTE_DQUOTE_DQUOTE, anon_sym_SQUOTE_SQUOTE_SQUOTE,
       anon_sym_r_DQUOTE_DQUOTE_DQUOTE, anon_sym_r_SQUOTE_SQUOTE_SQUOTE, anon_sym_LBRACE,
       anon_sym_LBRACK, anon_sym_COMMA, anon_sym_LPAREN, anon_sym_QMARK_QMARK,
       sym_equality_operator, anon_sym_LT_EQ, anon_sym_GT_EQ, anon_sym_CARET, anon_sym_LT_LT,
       anon_sym_GT_GT_GT, sym__additive_operator, anon_sym_STAR, anon_sym_PERCENT,
       anon_sym_TILDE_SLASH, anon_sym_is, anon_sym_DOT_DOT, anon_sym_QMARK_DOT_DOT,
       anon_sym_SEMI, anon_sym_EQ_GT, anon_sym_async_STAR, anon_sym_sync_STAR, anon_sym_AMP_AMP,
       anon_sym_PIPE_PIPE])]),
     (25172, 23, [(ACTIONS 3, 1, [anon_sym_SLASH_SLASH]), (ACTIONS 5, 1,
       [anon_sym_SLASH_STAR]), (ACTIONS 7, 1, [anon_sym_SLASH_SLASH_SLASH]), (ACTIONS 9, 1,
       [sym__block_comment]), (ACTIONS 11, 1, [sym__documentation_block_comment]), (ACTIONS 2302,
       1, [anon_sym_LPAREN]), (ACTIONS 2310, 1, [anon_sym_BANG]), (ACTIONS 2320, 1,
       [anon_sym_LBRACK]), (ACTIONS 2325, 1, [anon_sym_DOT]), (ACTIONS 2327, 1,
       [anon_sym_QMARK_DOT]), (ACTIONS 2348, 1, [anon_sym_QMARK]), (ACTIONS 2351, 1,
       [anon_sym_LT]), (STATE 744, 1, [aux_sym__assignable_selector_part_repeat1]), (STATE 1202,
       1, [sym_type_arguments]), (STATE 1208, 1, [sym__assignable_selector]), (STATE 1211, 1,
       [sym_index_selector]), (STATE 1253, 1, [sym_arguments]), (STATE 1256, 1, [sym_selector]),
       (STATE 741, 2, [sym_comment, sym_documentation_comment]), (STATE 1210, 2,
       [sym_unconditional_assignable_selector, sym_conditional_assignable_selector]), (STATE
       1255, 2, [sym__exclamation_operator, sym_argument_part]), (ACTIONS 2117, 5, [anon_sym_GT,
       anon_sym_PIPE, anon_sym_AMP, anon_sym_GT_GT, anon_sym_SLASH]), (ACTIONS 2103, 22,
       [anon_sym_RBRACE, anon_sym_COMMA, anon_sym_RBRACK, anon_sym_COLON, anon_sym_RPAREN,
       anon_sym_QMARK_QMARK, sym_equality_operator, anon_sym_LT_EQ, anon_sym_GT_EQ,
       anon_sym_CARET, anon_sym_LT_LT, anon_sym_GT_GT_GT, sym__additive_operator, anon_sym_STAR,
       anon_sym_PERCENT, anon_sym_TILDE_SLASH, anon_sym_is, anon_sym_as, anon_sym_EQ_GT,
       anon_sym_when, anon_sym_AMP_AMP, anon_sym_PIPE_PIPE])])]"

lemma small_run_180: "small_run 740 25104 ts_small_parse_table_180 742 25270"
  by (simp add: small_simps ts_small_parse_table_180_def)

definition ts_small_parse_table_181 :: "small_group list" where
  "ts_small_parse_table_181 = [
     (25270, 23, [(ACTIONS 3, 1, [anon_sym_SLASH_SLASH]), (ACTIONS 5, 1,
       [anon_sym_SLASH_STAR]), (ACTIONS 7, 1, [anon_sym_SLASH_SLASH_SLASH]), (ACTIONS 9, 1,
       [sym__block_comment]), (ACTIONS 11, 1, [sym__documentation_block_comment]), (ACTIONS 2302,
       1, [anon_sym_LPAREN]), (ACTIONS 2310, 1, [anon_sym_BANG]), (ACTIONS 2318, 1,
       [anon_sym_LT]), (ACTIONS 2320, 1, [anon_sym_LBRACK]), (ACTIONS 2325, 1, [anon_sym_DOT]),
       (ACTIONS 2327, 1, [anon_sym_QMARK_DOT]), (ACTIONS 2346, 1, [anon_sym_QMARK]), (STATE 744,
       1, [aux_sym__assignable_selector_part_repeat1]), (STATE 1202, 1, [sym_type_arguments]),
       (STATE 1208, 1, [sym__assignable_selector]), (STATE 1211, 1, [sym_index_selector]), (STATE
       1253, 1, [sym_arguments]), (STATE 1256, 1, [sym_selector]), (STATE 742, 2, [sym_comment,
       sym_documentation_comment]), (STATE 1210, 2, [sym_unconditional_assignable_selector,
       sym_conditional_assignable_selector]), (STATE 1255, 2, [sym__exclamation_operator,
       sym_argument_part]), (ACTIONS 2130, 5, [anon_sym_GT, anon_sym_PIPE, anon_sym_AMP,
       anon_sym_GT_GT, anon_sym_SLASH]), (ACTIONS 2128, 22, [anon_sym_RBRACE, anon_sym_COMMA,
       anon_sym_RBRACK, anon_sym_COLON, anon_sym_RPAREN, anon_sym_QMARK_QMARK,
       sym_equality_operator, anon_sym_LT_EQ, anon_sym_GT_EQ, anon_sym_CARET, anon_sym_LT_LT,
       anon_sym_GT_GT_GT, sym__additive_operator, anon_sym_STAR, anon_sym_PERCENT,
       anon_sym_TILDE_SLASH, anon_sym_is, anon_sym_as, anon_sym_EQ_GT, anon_sym_when,
       anon_sym_AMP_AMP, anon_sym_PIPE_PIPE])]),
     (25368, 8, [(ACTIONS 3, 1, [anon_sym_SLASH_SLASH]), (ACTIONS 5, 1, [anon_sym_SLASH_STAR]),
       (ACTIONS 7, 1, [anon_sym_SLASH_SLASH_SLASH]), (ACTIONS 9, 1, [sym__block_comment]),
       (ACTIONS 11, 1, [sym__documentation_block_comment]), (STATE 743, 2, [sym_comment,
       sym_documentation_comment]), (ACTIONS 1989, 16, [anon_sym_DQUOTE, anon_sym_SQUOTE,
       anon_sym_r_DQUOTE, anon_sym_r_SQUOTE, anon_sym_QMARK, anon_sym_LT, anon_sym_GT,
       anon_sym_PIPE, anon_sym_AMP, anon_sym_GT_GT, anon_sym_SLASH, anon_sym_BANG, anon_sym_as,
       anon_sym_DOT, anon_sym_QMARK_DOT, anon_sym_async]), (ACTIONS 1991, 28,
       [anon_sym_DQUOTE_DQUOTE_DQUOTE, anon_sym_SQUOTE_SQUOTE_SQUOTE,
       anon_sym_r_DQUOTE_DQUOTE_DQUOTE, anon_sym_r_SQUOTE_SQUOTE_SQUOTE, anon_sym_LBRACE,
       anon_sym_LBRACK, anon_sym_COMMA, anon_sym_LPAREN, anon_sym_QMARK_QMARK,
       sym_equality_operator, anon_sym_LT_EQ, anon_sym_GT_EQ, anon_sym_CARET, anon_sym_LT_LT,
       anon_sym_GT_GT_GT, sym__additive_operator, anon_sym_STAR, anon_sym_PERCENT,
       anon_sym_TILDE_SLASH, anon_sym_is, anon_sym_DOT_DOT, anon_sym_QMARK_DOT_DOT,
       anon_sym_SEMI, anon_sym_EQ_GT, anon_sym_async_STAR, anon_sym_sync_STAR, anon_sym_AMP_AMP,
       anon_sym_PIPE_PIPE])])]"

lemma small_run_181: "small_run 742 25270 ts_small_parse_table_181 744 25436"
  by (simp add: small_simps ts_small_parse_table_181_def)

definition ts_small_parse_table_182 :: "small_group list" where
  "ts_small_parse_table_182 = [
     (25436, 21, [(ACTIONS 3, 1, [anon_sym_SLASH_SLASH]), (ACTIONS 5, 1,
       [anon_sym_SLASH_STAR]), (ACTIONS 7, 1, [anon_sym_SLASH_SLASH_SLASH]), (ACTIONS 9, 1,
       [sym__block_comment]), (ACTIONS 11, 1, [sym__documentation_block_comment]), (ACTIONS 2354,
       1, [anon_sym_LBRACK]), (ACTIONS 2357, 1, [anon_sym_LPAREN]), (ACTIONS 2360, 1,
       [anon_sym_QMARK]), (ACTIONS 2363, 1, [anon_sym_LT]), (ACTIONS 2366, 1, [anon_sym_BANG]),
       (ACTIONS 2369, 1, [anon_sym_DOT]), (ACTIONS 2372, 1, [anon_sym_QMARK_DOT]), (STATE 1202,
       1, [sym_type_arguments]), (STATE 1232, 1, [sym_index_selector]), (STATE 1253, 1,
       [sym_arguments]), (STATE 1256, 1, [sym_selector]), (STATE 1231, 2,
       [sym_unconditional_assignable_selector, sym_conditional_assignable_selector]), (STATE 744,
       3, [sym_comment, sym_documentation_comment, aux_sym__assignable_selector_part_repeat1]),
       (STATE 1255, 3, [sym__exclamation_operator, sym_argument_part, sym__assignable_selector]),
       (ACTIONS 2092, 5, [anon_sym_GT, anon_sym_PIPE, anon_sym_AMP, anon_sym_GT_GT,
       anon_sym_SLASH]), (ACTIONS 2078, 22, [anon_sym_RBRACE, anon_sym_COMMA, anon_sym_RBRACK,
       anon_sym_COLON, anon_sym_RPAREN, anon_sym_QMARK_QMARK, sym_equality_operator,
       anon_sym_LT_EQ, anon_sym_GT_EQ, anon_sym_CARET, anon_sym_LT_LT, anon_sym_GT_GT_GT,
       sym__additive_operator, anon_sym_STAR, anon_sym_PERCENT, anon_sym_TILDE_SLASH,
       anon_sym_is, anon_sym_as, anon_sym_EQ_GT, anon_sym_when, anon_sym_AMP_AMP,
       anon_sym_PIPE_PIPE])]),
     (25530, 8, [(ACTIONS 3, 1, [anon_sym_SLASH_SLASH]), (ACTIONS 5, 1, [anon_sym_SLASH_STAR]),
       (ACTIONS 7, 1, [anon_sym_SLASH_SLASH_SLASH]), (ACTIONS 9, 1, [sym__block_comment]),
       (ACTIONS 11, 1, [sym__documentation_block_comment]), (STATE 745, 2, [sym_comment,
       sym_documentation_comment]), (ACTIONS 1973, 16, [anon_sym_DQUOTE, anon_sym_SQUOTE,
       anon_sym_r_DQUOTE, anon_sym_r_SQUOTE, anon_sym_QMARK, anon_sym_LT, anon_sym_GT,
       anon_sym_PIPE, anon_sym_AMP, anon_sym_GT_GT, anon_sym_SLASH, anon_sym_BANG, anon_sym_as,
       anon_sym_DOT, anon_sym_QMARK_DOT, anon_sym_async]), (ACTIONS 1975, 28,
       [anon_sym_DQUOTE_DQUOTE_DQUOTE, anon_sym_SQUOTE_SQUOTE_SQUOTE,
       anon_sym_r_DQUOTE_DQUOTE_DQUOTE, anon_sym_r_SQUOTE_SQUOTE_SQUOTE, anon_sym_LBRACE,
       anon_sym_LBRACK, anon_sym_COMMA, anon_sym_LPAREN, anon_sym_QMARK_QMARK,
       sym_equality_operator, anon_sym_LT_EQ, anon_sym_GT_EQ, anon_sym_CARET, anon_sym_LT_LT,
       anon_sym_GT_GT_GT, sym__additive_operator, anon_sym_STAR, anon_sym_PERCENT,
       anon_sym_TILDE_SLASH, anon_sym_is, anon_sym_DOT_DOT, anon_sym_QMARK_DOT_DOT,
       anon_sym_SEMI, anon_sym_EQ_GT, anon_sym_async_STAR, anon_sym_sync_STAR, anon_sym_AMP_AMP,
       anon_sym_PIPE_PIPE])])]"

lemma small_run_182: "small_run 744 25436 ts_small_parse_table_182 746 25598"
  by (simp add: small_simps ts_small_parse_table_182_def)

definition ts_small_parse_table_183 :: "small_group list" where
  "ts_small_parse_table_183 = [
     (25598, 8, [(ACTIONS 3, 1, [anon_sym_SLASH_SLASH]), (ACTIONS 5, 1, [anon_sym_SLASH_STAR]),
       (ACTIONS 7, 1, [anon_sym_SLASH_SLASH_SLASH]), (ACTIONS 9, 1, [sym__block_comment]),
       (ACTIONS 11, 1, [sym__documentation_block_comment]), (STATE 746, 2, [sym_comment,
       sym_documentation_comment]), (ACTIONS 1977, 16, [anon_sym_DQUOTE, anon_sym_SQUOTE,
       anon_sym_r_DQUOTE, anon_sym_r_SQUOTE, anon_sym_QMARK, anon_sym_LT, anon_sym_GT,
       anon_sym_PIPE, anon_sym_AMP, anon_sym_GT_GT, anon_sym_SLASH, anon_sym_BANG, anon_sym_as,
       anon_sym_DOT, anon_sym_QMARK_DOT, anon_sym_async]), (ACTIONS 1979, 28,
       [anon_sym_DQUOTE_DQUOTE_DQUOTE, anon_sym_SQUOTE_SQUOTE_SQUOTE,
       anon_sym_r_DQUOTE_DQUOTE_DQUOTE, anon_sym_r_SQUOTE_SQUOTE_SQUOTE, anon_sym_LBRACE,
       anon_sym_LBRACK, anon_sym_COMMA, anon_sym_LPAREN, anon_sym_QMARK_QMARK,
       sym_equality_operator, anon_sym_LT_EQ, anon_sym_GT_EQ, anon_sym_CARET, anon_sym_LT_LT,
       anon_sym_GT_GT_GT, sym__additive_operator, anon_sym_STAR, anon_sym_PERCENT,
       anon_sym_TILDE_SLASH, anon_sym_is, anon_sym_DOT_DOT, anon_sym_QMARK_DOT_DOT,
       anon_sym_SEMI, anon_sym_EQ_GT, anon_sym_async_STAR, anon_sym_sync_STAR, anon_sym_AMP_AMP,
       anon_sym_PIPE_PIPE])]),
     (25666, 8, [(ACTIONS 3, 1, [anon_sym_SLASH_SLASH]), (ACTIONS 5, 1, [anon_sym_SLASH_STAR]),
       (ACTIONS 7, 1, [anon_sym_SLASH_SLASH_SLASH]), (ACTIONS 9, 1, [sym__block_comment]),
       (ACTIONS 11, 1, [sym__documentation_block_comment]), (STATE 747, 2, [sym_comment,
       sym_documentation_comment]), (ACTIONS 1949, 16, [anon_sym_DQUOTE, anon_sym_SQUOTE,
       anon_sym_r_DQUOTE, anon_sym_r_SQUOTE, anon_sym_QMARK, anon_sym_LT, anon_sym_GT,
       anon_sym_PIPE, anon_sym_AMP, anon_sym_GT_GT, anon_sym_SLASH, anon_sym_BANG, anon_sym_as,
       anon_sym_DOT, anon_sym_QMARK_DOT, anon_sym_async]), (ACTIONS 1951, 28,
       [anon_sym_DQUOTE_DQUOTE_DQUOTE, anon_sym_SQUOTE_SQUOTE_SQUOTE,
       anon_sym_r_DQUOTE_DQUOTE_DQUOTE, anon_sym_r_SQUOTE_SQUOTE_SQUOTE, anon_sym_LBRACE,
       anon_sym_LBRACK, anon_sym_COMMA, anon_sym_LPAREN, anon_sym_QMARK_QMARK,
       sym_equality_operator, anon_sym_LT_EQ, anon_sym_GT_EQ, anon_sym_CARET, anon_sym_LT_LT,
       anon_sym_GT_GT_GT, sym__additive_operator, anon_sym_STAR, anon_sym_PERCENT,
       anon_sym_TILDE_SLASH, anon_sym_is, anon_sym_DOT_DOT, anon_sym_QMARK_DOT_DOT,
       anon_sym_SEMI, anon_sym_EQ_GT, anon_sym_async_STAR, anon_sym_sync_STAR, anon_sym_AMP_AMP,
       anon_sym_PIPE_PIPE])])]"

lemma small_run_183: "small_run 746 25598 ts_small_parse_table_183 748 25734"
  by (simp add: small_simps ts_small_parse_table_183_def)

definition ts_small_parse_table_184 :: "small_group list" where
  "ts_small_parse_table_184 = [
     (25734, 23, [(ACTIONS 3, 1, [anon_sym_SLASH_SLASH]), (ACTIONS 5, 1,
       [anon_sym_SLASH_STAR]), (ACTIONS 7, 1, [anon_sym_SLASH_SLASH_SLASH]), (ACTIONS 9, 1,
       [sym__block_comment]), (ACTIONS 11, 1, [sym__documentation_block_comment]), (ACTIONS 2300,
       1, [anon_sym_LBRACK]), (ACTIONS 2302, 1, [anon_sym_LPAREN]), (ACTIONS 2310, 1,
       [anon_sym_BANG]), (ACTIONS 2312, 1, [anon_sym_DOT]), (ACTIONS 2314, 1,
       [anon_sym_QMARK_DOT]), (ACTIONS 2351, 1, [anon_sym_LT]), (ACTIONS 2375, 1,
       [anon_sym_QMARK]), (STATE 673, 1, [sym__assignable_selector]), (STATE 676, 1,
       [sym_index_selector]), (STATE 744, 1, [aux_sym__assignable_selector_part_repeat1]), (STATE
       1202, 1, [sym_type_arguments]), (STATE 1253, 1, [sym_arguments]), (STATE 1256, 1,
       [sym_selector]), (STATE 661, 2, [sym_unconditional_assignable_selector,
       sym_conditional_assignable_selector]), (STATE 748, 2, [sym_comment,
       sym_documentation_comment]), (STATE 1255, 2, [sym__exclamation_operator,
       sym_argument_part]), (ACTIONS 2117, 5, [anon_sym_GT, anon_sym_PIPE, anon_sym_AMP,
       anon_sym_GT_GT, anon_sym_SLASH]), (ACTIONS 2103, 22, [anon_sym_RBRACE, anon_sym_COMMA,
       anon_sym_RBRACK, anon_sym_COLON, anon_sym_RPAREN, anon_sym_QMARK_QMARK,
       sym_equality_operator, anon_sym_LT_EQ, anon_sym_GT_EQ, anon_sym_CARET, anon_sym_LT_LT,
       anon_sym_GT_GT_GT, sym__additive_operator, anon_sym_STAR, anon_sym_PERCENT,
       anon_sym_TILDE_SLASH, anon_sym_is, anon_sym_as, anon_sym_EQ_GT, anon_sym_when,
       anon_sym_AMP_AMP, anon_sym_PIPE_PIPE])]),
     (25832, 23, [(ACTIONS 3, 1, [anon_sym_SLASH_SLASH]), (ACTIONS 5, 1,
       [anon_sym_SLASH_STAR]), (ACTIONS 7, 1, [anon_sym_SLASH_SLASH_SLASH]), (ACTIONS 9, 1,
       [sym__block_comment]), (ACTIONS 11, 1, [sym__documentation_block_comment]), (ACTIONS 2300,
       1, [anon_sym_LBRACK]), (ACTIONS 2302, 1, [anon_sym_LPAREN]), (ACTIONS 2310, 1,
       [anon_sym_BANG]), (ACTIONS 2312, 1, [anon_sym_DOT]), (ACTIONS 2314, 1,
       [anon_sym_QMARK_DOT]), (ACTIONS 2316, 1, [anon_sym_QMARK]), (ACTIONS 2318, 1,
       [anon_sym_LT]), (STATE 673, 1, [sym__assignable_selector]), (STATE 676, 1,
       [sym_index_selector]), (STATE 744, 1, [aux_sym__assignable_selector_part_repeat1]), (STATE
       1202, 1, [sym_type_arguments]), (STATE 1253, 1, [sym_arguments]), (STATE 1256, 1,
       [sym_selector]), (STATE 661, 2, [sym_unconditional_assignable_selector,
       sym_conditional_assignable_selector]), (STATE 749, 2, [sym_comment,
       sym_documentation_comment]), (STATE 1255, 2, [sym__exclamation_operator,
       sym_argument_part]), (ACTIONS 2130, 5, [anon_sym_GT, anon_sym_PIPE, anon_sym_AMP,
       anon_sym_GT_GT, anon_sym_SLASH]), (ACTIONS 2128, 22, [anon_sym_RBRACE, anon_sym_COMMA,
       anon_sym_RBRACK, anon_sym_COLON, anon_sym_RPAREN, anon_sym_QMARK_QMARK,
       sym_equality_operator, anon_sym_LT_EQ, anon_sym_GT_EQ, anon_sym_CARET, anon_sym_LT_LT,
       anon_sym_GT_GT_GT, sym__additive_operator, anon_sym_STAR, anon_sym_PERCENT,
       anon_sym_TILDE_SLASH, anon_sym_is, anon_sym_as, anon_sym_EQ_GT, anon_sym_when,
       anon_sym_AMP_AMP, anon_sym_PIPE_PIPE])])]"

lemma small_run_184: "small_run 748 25734 ts_small_parse_table_184 750 25930"
  by (simp add: small_simps ts_small_parse_table_184_def)

definition ts_small_parse_table_185 :: "small_group list" where
  "ts_small_parse_table_185 = [
     (25930, 8, [(ACTIONS 3, 1, [anon_sym_SLASH_SLASH]), (ACTIONS 5, 1, [anon_sym_SLASH_STAR]),
       (ACTIONS 7, 1, [anon_sym_SLASH_SLASH_SLASH]), (ACTIONS 9, 1, [sym__block_comment]),
       (ACTIONS 11, 1, [sym__documentation_block_comment]), (STATE 750, 2, [sym_comment,
       sym_documentation_comment]), (ACTIONS 1981, 16, [anon_sym_DQUOTE, anon_sym_SQUOTE,
       anon_sym_r_DQUOTE, anon_sym_r_SQUOTE, anon_sym_QMARK, anon_sym_LT, anon_sym_GT,
       anon_sym_PIPE, anon_sym_AMP, anon_sym_GT_GT, anon_sym_SLASH, anon_sym_BANG, anon_sym_as,
       anon_sym_DOT, anon_sym_QMARK_DOT, anon_sym_async]), (ACTIONS 1983, 28,
       [anon_sym_DQUOTE_DQUOTE_DQUOTE, anon_sym_SQUOTE_SQUOTE_SQUOTE,
       anon_sym_r_DQUOTE_DQUOTE_DQUOTE, anon_sym_r_SQUOTE_SQUOTE_SQUOTE, anon_sym_LBRACE,
       anon_sym_LBRACK, anon_sym_COMMA, anon_sym_LPAREN, anon_sym_QMARK_QMARK,
       sym_equality_operator, anon_sym_LT_EQ, anon_sym_GT_EQ, anon_sym_CARET, anon_sym_LT_LT,
       anon_sym_GT_GT_GT, sym__additive_operator, anon_sym_STAR, anon_sym_PERCENT,
       anon_sym_TILDE_SLASH, anon_sym_is, anon_sym_DOT_DOT, anon_sym_QMARK_DOT_DOT,
       anon_sym_SEMI, anon_sym_EQ_GT, anon_sym_async_STAR, anon_sym_sync_STAR, anon_sym_AMP_AMP,
       anon_sym_PIPE_PIPE])])]"

lemma small_run_185: "small_run 750 25930 ts_small_parse_table_185 751 25998"
  by (simp add: small_simps ts_small_parse_table_185_def)

definition ts_small_parse_table_186 :: "small_group list" where
  "ts_small_parse_table_186 = [
     (25998, 47, [(ACTIONS 3, 1, [anon_sym_SLASH_SLASH]), (ACTIONS 5, 1,
       [anon_sym_SLASH_STAR]), (ACTIONS 7, 1, [anon_sym_SLASH_SLASH_SLASH]), (ACTIONS 9, 1,
       [sym__block_comment]), (ACTIONS 11, 1, [sym__documentation_block_comment]), (ACTIONS 17,
       1, [anon_sym_LPAREN]), (ACTIONS 33, 1, [sym_void_type]), (ACTIONS 35, 1, [anon_sym_var]),
       (ACTIONS 45, 1, [anon_sym_Function]), (ACTIONS 67, 1, [anon_sym_late]), (ACTIONS 143, 1,
       [anon_sym_AT]), (ACTIONS 145, 1, [anon_sym_final]), (ACTIONS 153, 1,
       [anon_sym_covariant]), (ACTIONS 159, 1, [anon_sym_this]), (ACTIONS 161, 1,
       [anon_sym_super]), (ACTIONS 446, 1, [anon_sym_required]), (ACTIONS 2262, 1,
       [sym_identifier]), (ACTIONS 2268, 1, [sym_const_builtin]), (ACTIONS 2378, 1,
       [anon_sym_RBRACE]), (STATE 825, 1, [sym__metadata]), (STATE 910, 1, [sym__required]),
       (STATE 1308, 1, [aux_sym__metadata_repeat1]), (STATE 1361, 1, [sym_annotation]), (STATE
       1463, 1, [sym__function_builtin_identifier]), (STATE 1530, 1, [sym__type_name]), (STATE
       1605, 1, [aux_sym__function_type_tails]), (STATE 1704, 1, [sym__function_type_tail]),
       (STATE 1794, 1, [sym__covariant]), (STATE 1796, 1, [sym__type_not_function]), (STATE 1805,
       1, [sym_record_type]), (STATE 1848, 1, [sym_function_type]), (STATE 1896, 1,
       [sym__type_not_void_not_function]), (STATE 1915, 1, [sym__late_builtin]), (STATE 1976, 1,
       [sym_inferred_type]), (STATE 1984, 1, [sym_final_builtin]), (STATE 2464, 1,
       [sym__simple_formal_parameter]), (STATE 2466, 1, [sym__normal_formal_parameter]), (STATE
       2468, 1, [sym__declared_identifier]), (STATE 2557, 1, [sym__final_const_var_or_type]),
       (STATE 2654, 1, [sym_formal_parameter]), (STATE 2755, 1, [sym__var_or_type]), (STATE 2756,
       1, [sym__type]), (STATE 3040, 1, [sym__default_named_parameter]), (STATE 3283, 1,
       [sym_this]), (STATE 3288, 1, [sym_super]), (STATE 751, 2, [sym_comment,
       sym_documentation_comment]), (STATE 2465, 3, [sym__function_formal_parameter,
       sym_super_formal_parameter, sym_constructor_param])])]"

lemma small_run_186: "small_run 751 25998 ts_small_parse_table_186 752 26143"
  by (simp add: small_simps ts_small_parse_table_186_def)

definition ts_small_parse_table_187 :: "small_group list" where
  "ts_small_parse_table_187 = [
     (26143, 14, [(ACTIONS 3, 1, [anon_sym_SLASH_SLASH]), (ACTIONS 5, 1,
       [anon_sym_SLASH_STAR]), (ACTIONS 7, 1, [anon_sym_SLASH_SLASH_SLASH]), (ACTIONS 9, 1,
       [sym__block_comment]), (ACTIONS 11, 1, [sym__documentation_block_comment]), (ACTIONS 2383,
       1, [anon_sym_LPAREN]), (ACTIONS 2387, 1, [anon_sym_QMARK]), (ACTIONS 2391, 1,
       [anon_sym_LT]), (STATE 795, 1, [sym_type_parameters]), (STATE 797, 1,
       [sym_nullable_type]), (STATE 827, 1, [sym_parameter_type_list]), (STATE 752, 2,
       [sym_comment, sym_documentation_comment]), (ACTIONS 2395, 8, [anon_sym_GT, anon_sym_PIPE,
       anon_sym_AMP, anon_sym_GT_GT, anon_sym_SLASH, anon_sym_BANG, anon_sym_DOT,
       anon_sym_QMARK_DOT]), (ACTIONS 2380, 29, [anon_sym_RBRACE, anon_sym_LBRACK,
       anon_sym_COMMA, anon_sym_RBRACK, anon_sym_COLON, anon_sym_RPAREN, anon_sym_QMARK_QMARK,
       sym_equality_operator, anon_sym_LT_EQ, anon_sym_GT_EQ, anon_sym_CARET, anon_sym_LT_LT,
       anon_sym_GT_GT_GT, sym__additive_operator, anon_sym_STAR, anon_sym_PERCENT,
       anon_sym_TILDE_SLASH, anon_sym_is, anon_sym_as, anon_sym_DOT_DOT, anon_sym_QMARK_DOT_DOT,
       anon_sym_SEMI, anon_sym_EQ_GT, anon_sym_when, anon_sym_case, anon_sym_else,
       anon_sym_Function, anon_sym_AMP_AMP, anon_sym_PIPE_PIPE])])]"

lemma small_run_187: "small_run 752 26143 ts_small_parse_table_187 753 26222"
  by (simp add: small_simps ts_small_parse_table_187_def)

definition ts_small_parse_table_188 :: "small_group list" where
  "ts_small_parse_table_188 = [
     (26222, 40, [(ACTIONS 3, 1, [anon_sym_SLASH_SLASH]), (ACTIONS 5, 1,
       [anon_sym_SLASH_STAR]), (ACTIONS 7, 1, [anon_sym_SLASH_SLASH_SLASH]), (ACTIONS 9, 1,
       [sym__block_comment]), (ACTIONS 11, 1, [sym__documentation_block_comment]), (ACTIONS 1273,
       1, [anon_sym_GT_GT]), (ACTIONS 1275, 1, [sym__additive_operator]), (ACTIONS 1279, 1,
       [anon_sym_is]), (ACTIONS 1281, 1, [anon_sym_as]), (ACTIONS 1286, 1, [anon_sym_AMP_AMP]),
       (ACTIONS 1288, 1, [anon_sym_PIPE_PIPE]), (ACTIONS 2398, 1, [anon_sym_QMARK_QMARK]),
       (ACTIONS 2400, 1, [anon_sym_QMARK]), (ACTIONS 2402, 1, [sym_equality_operator]), (ACTIONS
       2404, 1, [anon_sym_PIPE]), (ACTIONS 2406, 1, [anon_sym_CARET]), (ACTIONS 2408, 1,
       [anon_sym_AMP]), (STATE 309, 1, [sym_logical_and_operator]), (STATE 349, 1,
       [sym_relational_operator]), (STATE 356, 1, [sym_shift_operator]), (STATE 361, 1,
       [sym_additive_operator]), (STATE 369, 1, [sym_logical_or_operator]), (STATE 1397, 1,
       [sym__shift_operator]), (STATE 1535, 1, [aux_sym_shift_expression_repeat1]), (STATE 1554,
       1, [aux_sym_logical_and_expression_repeat1]), (STATE 1592, 1,
       [aux_sym_logical_or_expression_repeat1]), (STATE 1606, 1,
       [aux_sym_additive_expression_repeat1]), (STATE 1617, 1,
       [aux_sym_bitwise_and_expression_repeat1]), (STATE 1626, 1,
       [aux_sym_bitwise_xor_expression_repeat1]), (STATE 1660, 1,
       [aux_sym_bitwise_or_expression_repeat1]), (STATE 1661, 1, [aux_sym__if_null_expression]),
       (STATE 1669, 1, [sym_type_cast]), (STATE 1709, 1, [sym_type_test]), (STATE 2058, 1,
       [sym_is_operator]), (STATE 2077, 1, [sym_as_operator]), (ACTIONS 400, 2, [anon_sym_LT,
       anon_sym_GT]), (ACTIONS 402, 2, [anon_sym_LT_EQ, anon_sym_GT_EQ]), (ACTIONS 1271, 2,
       [anon_sym_LT_LT, anon_sym_GT_GT_GT]), (STATE 753, 2, [sym_comment,
       sym_documentation_comment]), (ACTIONS 1357, 7, [anon_sym_RBRACE, anon_sym_COMMA,
       anon_sym_RBRACK, anon_sym_COLON, anon_sym_RPAREN, anon_sym_EQ_GT, anon_sym_when])])]"

lemma small_run_188: "small_run 753 26222 ts_small_parse_table_188 754 26353"
  by (simp add: small_simps ts_small_parse_table_188_def)

definition ts_small_parse_table_189 :: "small_group list" where
  "ts_small_parse_table_189 = [
     (26353, 40, [(ACTIONS 3, 1, [anon_sym_SLASH_SLASH]), (ACTIONS 5, 1,
       [anon_sym_SLASH_STAR]), (ACTIONS 7, 1, [anon_sym_SLASH_SLASH_SLASH]), (ACTIONS 9, 1,
       [sym__block_comment]), (ACTIONS 11, 1, [sym__documentation_block_comment]), (ACTIONS 1273,
       1, [anon_sym_GT_GT]), (ACTIONS 1275, 1, [sym__additive_operator]), (ACTIONS 1279, 1,
       [anon_sym_is]), (ACTIONS 1281, 1, [anon_sym_as]), (ACTIONS 1286, 1, [anon_sym_AMP_AMP]),
       (ACTIONS 1288, 1, [anon_sym_PIPE_PIPE]), (ACTIONS 2398, 1, [anon_sym_QMARK_QMARK]),
       (ACTIONS 2400, 1, [anon_sym_QMARK]), (ACTIONS 2402, 1, [sym_equality_operator]), (ACTIONS
       2404, 1, [anon_sym_PIPE]), (ACTIONS 2406, 1, [anon_sym_CARET]), (ACTIONS 2408, 1,
       [anon_sym_AMP]), (STATE 309, 1, [sym_logical_and_operator]), (STATE 349, 1,
       [sym_relational_operator]), (STATE 356, 1, [sym_shift_operator]), (STATE 361, 1,
       [sym_additive_operator]), (STATE 369, 1, [sym_logical_or_operator]), (STATE 1397, 1,
       [sym__shift_operator]), (STATE 1535, 1, [aux_sym_shift_expression_repeat1]), (STATE 1554,
       1, [aux_sym_logical_and_expression_repeat1]), (STATE 1592, 1,
       [aux_sym_logical_or_expression_repeat1]), (STATE 1606, 1,
       [aux_sym_additive_expression_repeat1]), (STATE 1617, 1,
       [aux_sym_bitwise_and_expression_repeat1]), (STATE 1626, 1,
       [aux_sym_bitwise_xor_expression_repeat1]), (STATE 1660, 1,
       [aux_sym_bitwise_or_expression_repeat1]), (STATE 1661, 1, [aux_sym__if_null_expression]),
       (STATE 1669, 1, [sym_type_cast]), (STATE 1709, 1, [sym_type_test]), (STATE 2058, 1,
       [sym_is_operator]), (STATE 2077, 1, [sym_as_operator]), (ACTIONS 400, 2, [anon_sym_LT,
       anon_sym_GT]), (ACTIONS 402, 2, [anon_sym_LT_EQ, anon_sym_GT_EQ]), (ACTIONS 1271, 2,
       [anon_sym_LT_LT, anon_sym_GT_GT_GT]), (STATE 754, 2, [sym_comment,
       sym_documentation_comment]), (ACTIONS 1410, 7, [anon_sym_RBRACE, anon_sym_COMMA,
       anon_sym_RBRACK, anon_sym_COLON, anon_sym_RPAREN, anon_sym_EQ_GT, anon_sym_when])])]"

lemma small_run_189: "small_run 754 26353 ts_small_parse_table_189 755 26484"
  by (simp add: small_simps ts_small_parse_table_189_def)

definition ts_small_parse_table_190 :: "small_group list" where
  "ts_small_parse_table_190 = [
     (26484, 36, [(ACTIONS 3, 1, [anon_sym_SLASH_SLASH]), (ACTIONS 5, 1,
       [anon_sym_SLASH_STAR]), (ACTIONS 7, 1, [anon_sym_SLASH_SLASH_SLASH]), (ACTIONS 9, 1,
       [sym__block_comment]), (ACTIONS 11, 1, [sym__documentation_block_comment]), (ACTIONS 1273,
       1, [anon_sym_GT_GT]), (ACTIONS 1275, 1, [sym__additive_operator]), (ACTIONS 1279, 1,
       [anon_sym_is]), (ACTIONS 1281, 1, [anon_sym_as]), (ACTIONS 1424, 1, [anon_sym_QMARK]),
       (ACTIONS 2404, 1, [anon_sym_PIPE]), (ACTIONS 2406, 1, [anon_sym_CARET]), (ACTIONS 2408, 1,
       [anon_sym_AMP]), (STATE 309, 1, [sym_logical_and_operator]), (STATE 349, 1,
       [sym_relational_operator]), (STATE 356, 1, [sym_shift_operator]), (STATE 361, 1,
       [sym_additive_operator]), (STATE 369, 1, [sym_logical_or_operator]), (STATE 1397, 1,
       [sym__shift_operator]), (STATE 1535, 1, [aux_sym_shift_expression_repeat1]), (STATE 1554,
       1, [aux_sym_logical_and_expression_repeat1]), (STATE 1592, 1,
       [aux_sym_logical_or_expression_repeat1]), (STATE 1606, 1,
       [aux_sym_additive_expression_repeat1]), (STATE 1617, 1,
       [aux_sym_bitwise_and_expression_repeat1]), (STATE 1626, 1,
       [aux_sym_bitwise_xor_expression_repeat1]), (STATE 1660, 1,
       [aux_sym_bitwise_or_expression_repeat1]), (STATE 1661, 1, [aux_sym__if_null_expression]),
       (STATE 1669, 1, [sym_type_cast]), (STATE 1709, 1, [sym_type_test]), (STATE 2058, 1,
       [sym_is_operator]), (STATE 2077, 1, [sym_as_operator]), (ACTIONS 1271, 2, [anon_sym_LT_LT,
       anon_sym_GT_GT_GT]), (ACTIONS 1426, 2, [anon_sym_LT, anon_sym_GT]), (ACTIONS 1429, 2,
       [anon_sym_LT_EQ, anon_sym_GT_EQ]), (STATE 755, 2, [sym_comment,
       sym_documentation_comment]), (ACTIONS 1422, 11, [anon_sym_RBRACE, anon_sym_COMMA,
       anon_sym_RBRACK, anon_sym_COLON, anon_sym_RPAREN, anon_sym_QMARK_QMARK,
       sym_equality_operator, anon_sym_EQ_GT, anon_sym_when, anon_sym_AMP_AMP,
       anon_sym_PIPE_PIPE])])]"

lemma small_run_190: "small_run 755 26484 ts_small_parse_table_190 756 26607"
  by (simp add: small_simps ts_small_parse_table_190_def)

definition ts_small_parse_table_191 :: "small_group list" where
  "ts_small_parse_table_191 = [
     (26607, 37, [(ACTIONS 3, 1, [anon_sym_SLASH_SLASH]), (ACTIONS 5, 1,
       [anon_sym_SLASH_STAR]), (ACTIONS 7, 1, [anon_sym_SLASH_SLASH_SLASH]), (ACTIONS 9, 1,
       [sym__block_comment]), (ACTIONS 11, 1, [sym__documentation_block_comment]), (ACTIONS 1273,
       1, [anon_sym_GT_GT]), (ACTIONS 1275, 1, [sym__additive_operator]), (ACTIONS 1279, 1,
       [anon_sym_is]), (ACTIONS 1281, 1, [anon_sym_as]), (ACTIONS 2338, 1, [anon_sym_PIPE]),
       (ACTIONS 2340, 1, [anon_sym_CARET]), (ACTIONS 2342, 1, [anon_sym_AMP]), (ACTIONS 2410, 1,
       [sym_equality_operator]), (STATE 322, 1, [sym_logical_or_operator]), (STATE 324, 1,
       [sym_logical_and_operator]), (STATE 335, 1, [sym_additive_operator]), (STATE 339, 1,
       [sym_shift_operator]), (STATE 351, 1, [sym_relational_operator]), (STATE 956, 1,
       [sym_type_cast]), (STATE 957, 1, [sym_type_test]), (STATE 1397, 1, [sym__shift_operator]),
       (STATE 1517, 1, [aux_sym_shift_expression_repeat1]), (STATE 1570, 1,
       [aux_sym_logical_or_expression_repeat1]), (STATE 1574, 1,
       [aux_sym_logical_and_expression_repeat1]), (STATE 1582, 1,
       [aux_sym_additive_expression_repeat1]), (STATE 1662, 1, [aux_sym__if_null_expression]),
       (STATE 1663, 1, [aux_sym_bitwise_or_expression_repeat1]), (STATE 1665, 1,
       [aux_sym_bitwise_xor_expression_repeat1]), (STATE 1666, 1,
       [aux_sym_bitwise_and_expression_repeat1]), (STATE 2089, 1, [sym_is_operator]), (STATE
       2090, 1, [sym_as_operator]), (ACTIONS 400, 2, [anon_sym_LT, anon_sym_GT]), (ACTIONS 402,
       2, [anon_sym_LT_EQ, anon_sym_GT_EQ]), (ACTIONS 1271, 2, [anon_sym_LT_LT,
       anon_sym_GT_GT_GT]), (STATE 756, 2, [sym_comment, sym_documentation_comment]), (ACTIONS
       1401, 4, [anon_sym_QMARK, anon_sym_BANG, anon_sym_DOT, anon_sym_QMARK_DOT]), (ACTIONS
       1399, 7, [anon_sym_LBRACK, anon_sym_LPAREN, anon_sym_QMARK_QMARK, anon_sym_DOT_DOT,
       anon_sym_QMARK_DOT_DOT, anon_sym_AMP_AMP, anon_sym_PIPE_PIPE])])]"

lemma small_run_191: "small_run 756 26607 ts_small_parse_table_191 757 26732"
  by (simp add: small_simps ts_small_parse_table_191_def)

definition ts_small_parse_table_192 :: "small_group list" where
  "ts_small_parse_table_192 = [
     (26732, 41, [(ACTIONS 3, 1, [anon_sym_SLASH_SLASH]), (ACTIONS 5, 1,
       [anon_sym_SLASH_STAR]), (ACTIONS 7, 1, [anon_sym_SLASH_SLASH_SLASH]), (ACTIONS 9, 1,
       [sym__block_comment]), (ACTIONS 11, 1, [sym__documentation_block_comment]), (ACTIONS 1273,
       1, [anon_sym_GT_GT]), (ACTIONS 1275, 1, [sym__additive_operator]), (ACTIONS 1279, 1,
       [anon_sym_is]), (ACTIONS 1281, 1, [anon_sym_as]), (ACTIONS 1286, 1, [anon_sym_AMP_AMP]),
       (ACTIONS 1288, 1, [anon_sym_PIPE_PIPE]), (ACTIONS 2332, 1, [anon_sym_QMARK_QMARK]),
       (ACTIONS 2334, 1, [anon_sym_QMARK]), (ACTIONS 2336, 1, [sym_equality_operator]), (ACTIONS
       2338, 1, [anon_sym_PIPE]), (ACTIONS 2340, 1, [anon_sym_CARET]), (ACTIONS 2342, 1,
       [anon_sym_AMP]), (STATE 322, 1, [sym_logical_or_operator]), (STATE 324, 1,
       [sym_logical_and_operator]), (STATE 335, 1, [sym_additive_operator]), (STATE 339, 1,
       [sym_shift_operator]), (STATE 351, 1, [sym_relational_operator]), (STATE 956, 1,
       [sym_type_cast]), (STATE 957, 1, [sym_type_test]), (STATE 1397, 1, [sym__shift_operator]),
       (STATE 1517, 1, [aux_sym_shift_expression_repeat1]), (STATE 1570, 1,
       [aux_sym_logical_or_expression_repeat1]), (STATE 1574, 1,
       [aux_sym_logical_and_expression_repeat1]), (STATE 1582, 1,
       [aux_sym_additive_expression_repeat1]), (STATE 1662, 1, [aux_sym__if_null_expression]),
       (STATE 1663, 1, [aux_sym_bitwise_or_expression_repeat1]), (STATE 1665, 1,
       [aux_sym_bitwise_xor_expression_repeat1]), (STATE 1666, 1,
       [aux_sym_bitwise_and_expression_repeat1]), (STATE 2089, 1, [sym_is_operator]), (STATE
       2090, 1, [sym_as_operator]), (ACTIONS 400, 2, [anon_sym_LT, anon_sym_GT]), (ACTIONS 402,
       2, [anon_sym_LT_EQ, anon_sym_GT_EQ]), (ACTIONS 1271, 2, [anon_sym_LT_LT,
       anon_sym_GT_GT_GT]), (STATE 757, 2, [sym_comment, sym_documentation_comment]), (ACTIONS
       1412, 3, [anon_sym_BANG, anon_sym_DOT, anon_sym_QMARK_DOT]), (ACTIONS 1410, 4,
       [anon_sym_LBRACK, anon_sym_LPAREN, anon_sym_DOT_DOT, anon_sym_QMARK_DOT_DOT])])]"

lemma small_run_192: "small_run 757 26732 ts_small_parse_table_192 758 26865"
  by (simp add: small_simps ts_small_parse_table_192_def)

definition ts_small_parse_table_193 :: "small_group list" where
  "ts_small_parse_table_193 = [
     (26865, 12, [(ACTIONS 3, 1, [anon_sym_SLASH_SLASH]), (ACTIONS 5, 1,
       [anon_sym_SLASH_STAR]), (ACTIONS 7, 1, [anon_sym_SLASH_SLASH_SLASH]), (ACTIONS 9, 1,
       [sym__block_comment]), (ACTIONS 11, 1, [sym__documentation_block_comment]), (ACTIONS 2417,
       1, [anon_sym_Function]), (STATE 774, 1, [aux_sym__function_type_tails]), (STATE 777, 1,
       [sym__function_builtin_identifier]), (STATE 868, 1, [sym__function_type_tail]), (STATE
       758, 2, [sym_comment, sym_documentation_comment]), (ACTIONS 2415, 10, [anon_sym_QMARK,
       anon_sym_LT, anon_sym_GT, anon_sym_PIPE, anon_sym_AMP, anon_sym_GT_GT, anon_sym_SLASH,
       anon_sym_BANG, anon_sym_DOT, anon_sym_QMARK_DOT]), (ACTIONS 2413, 29, [anon_sym_RBRACE,
       anon_sym_LBRACK, anon_sym_COMMA, anon_sym_RBRACK, anon_sym_COLON, anon_sym_LPAREN,
       anon_sym_RPAREN, anon_sym_QMARK_QMARK, sym_equality_operator, anon_sym_LT_EQ,
       anon_sym_GT_EQ, anon_sym_CARET, anon_sym_LT_LT, anon_sym_GT_GT_GT, sym__additive_operator,
       anon_sym_STAR, anon_sym_PERCENT, anon_sym_TILDE_SLASH, anon_sym_is, anon_sym_as,
       anon_sym_DOT_DOT, anon_sym_QMARK_DOT_DOT, anon_sym_SEMI, anon_sym_EQ_GT, anon_sym_when,
       anon_sym_case, anon_sym_else, anon_sym_AMP_AMP, anon_sym_PIPE_PIPE])]),
     (26940, 26, [(ACTIONS 3, 1, [anon_sym_SLASH_SLASH]), (ACTIONS 5, 1,
       [anon_sym_SLASH_STAR]), (ACTIONS 7, 1, [anon_sym_SLASH_SLASH_SLASH]), (ACTIONS 9, 1,
       [sym__block_comment]), (ACTIONS 11, 1, [sym__documentation_block_comment]), (ACTIONS 1067,
       1, [anon_sym_EQ]), (ACTIONS 2419, 1, [anon_sym_LBRACK]), (ACTIONS 2421, 1,
       [anon_sym_LPAREN]), (ACTIONS 2423, 1, [anon_sym_QMARK]), (ACTIONS 2425, 1, [anon_sym_LT]),
       (ACTIONS 2427, 1, [anon_sym_DOT]), (ACTIONS 2429, 1, [anon_sym_QMARK_DOT]), (STATE 293, 1,
       [sym__assignment_operator]), (STATE 781, 1, [aux_sym_cascade_section_repeat1]), (STATE
       997, 1, [sym__assignable_selector]), (STATE 999, 1, [sym__cascade_assignment_section]),
       (STATE 1069, 1, [aux_sym_cascade_section_repeat2]), (STATE 1088, 1, [sym_argument_part]),
       (STATE 1109, 1, [sym_arguments]), (STATE 1141, 1, [sym__cascade_subsection]), (STATE 1145,
       1, [sym_index_selector]), (STATE 3052, 1, [sym_type_arguments]), (STATE 759, 2,
       [sym_comment, sym_documentation_comment]), (STATE 1138, 2,
       [sym_unconditional_assignable_selector, sym_conditional_assignable_selector]), (ACTIONS
       1073, 11, [anon_sym_RBRACE, anon_sym_COMMA, anon_sym_RBRACK, anon_sym_COLON,
       anon_sym_RPAREN, anon_sym_DOT_DOT, anon_sym_QMARK_DOT_DOT, anon_sym_SEMI, anon_sym_EQ_GT,
       anon_sym_case, anon_sym_else]), (ACTIONS 1069, 13, [anon_sym_PLUS_EQ, anon_sym_DASH_EQ,
       anon_sym_STAR_EQ, anon_sym_SLASH_EQ, anon_sym_PERCENT_EQ, anon_sym_TILDE_SLASH_EQ,
       anon_sym_LT_LT_EQ, anon_sym_GT_GT_EQ, anon_sym_GT_GT_GT_EQ, anon_sym_AMP_EQ,
       anon_sym_CARET_EQ, anon_sym_PIPE_EQ, anon_sym_QMARK_QMARK_EQ])])]"

lemma small_run_193: "small_run 758 26865 ts_small_parse_table_193 760 27043"
  by (simp add: small_simps ts_small_parse_table_193_def)

definition ts_small_parse_table_194 :: "small_group list" where
  "ts_small_parse_table_194 = [
     (27043, 40, [(ACTIONS 3, 1, [anon_sym_SLASH_SLASH]), (ACTIONS 5, 1,
       [anon_sym_SLASH_STAR]), (ACTIONS 7, 1, [anon_sym_SLASH_SLASH_SLASH]), (ACTIONS 9, 1,
       [sym__block_comment]), (ACTIONS 11, 1, [sym__documentation_block_comment]), (ACTIONS 1273,
       1, [anon_sym_GT_GT]), (ACTIONS 1275, 1, [sym__additive_operator]), (ACTIONS 1279, 1,
       [anon_sym_is]), (ACTIONS 1281, 1, [anon_sym_as]), (ACTIONS 1286, 1, [anon_sym_AMP_AMP]),
       (ACTIONS 1288, 1, [anon_sym_PIPE_PIPE]), (ACTIONS 2398, 1, [anon_sym_QMARK_QMARK]),
       (ACTIONS 2400, 1, [anon_sym_QMARK]), (ACTIONS 2402, 1, [sym_equality_operator]), (ACTIONS
       2404, 1, [anon_sym_PIPE]), (ACTIONS 2406, 1, [anon_sym_CARET]), (ACTIONS 2408, 1,
       [anon_sym_AMP]), (STATE 309, 1, [sym_logical_and_operator]), (STATE 349, 1,
       [sym_relational_operator]), (STATE 356, 1, [sym_shift_operator]), (STATE 361, 1,
       [sym_additive_operator]), (STATE 369, 1, [sym_logical_or_operator]), (STATE 1397, 1,
       [sym__shift_operator]), (STATE 1535, 1, [aux_sym_shift_expression_repeat1]), (STATE 1554,
       1, [aux_sym_logical_and_expression_repeat1]), (STATE 1592, 1,
       [aux_sym_logical_or_expression_repeat1]), (STATE 1606, 1,
       [aux_sym_additive_expression_repeat1]), (STATE 1617, 1,
       [aux_sym_bitwise_and_expression_repeat1]), (STATE 1626, 1,
       [aux_sym_bitwise_xor_expression_repeat1]), (STATE 1660, 1,
       [aux_sym_bitwise_or_expression_repeat1]), (STATE 1661, 1, [aux_sym__if_null_expression]),
       (STATE 1669, 1, [sym_type_cast]), (STATE 1709, 1, [sym_type_test]), (STATE 2058, 1,
       [sym_is_operator]), (STATE 2077, 1, [sym_as_operator]), (ACTIONS 400, 2, [anon_sym_LT,
       anon_sym_GT]), (ACTIONS 402, 2, [anon_sym_LT_EQ, anon_sym_GT_EQ]), (ACTIONS 1271, 2,
       [anon_sym_LT_LT, anon_sym_GT_GT_GT]), (STATE 760, 2, [sym_comment,
       sym_documentation_comment]), (ACTIONS 1406, 7, [anon_sym_RBRACE, anon_sym_COMMA,
       anon_sym_RBRACK, anon_sym_COLON, anon_sym_RPAREN, anon_sym_EQ_GT, anon_sym_when])])]"

lemma small_run_194: "small_run 760 27043 ts_small_parse_table_194 761 27174"
  by (simp add: small_simps ts_small_parse_table_194_def)

definition ts_small_parse_table_195 :: "small_group list" where
  "ts_small_parse_table_195 = [
     (27174, 41, [(ACTIONS 3, 1, [anon_sym_SLASH_SLASH]), (ACTIONS 5, 1,
       [anon_sym_SLASH_STAR]), (ACTIONS 7, 1, [anon_sym_SLASH_SLASH_SLASH]), (ACTIONS 9, 1,
       [sym__block_comment]), (ACTIONS 11, 1, [sym__documentation_block_comment]), (ACTIONS 1273,
       1, [anon_sym_GT_GT]), (ACTIONS 1275, 1, [sym__additive_operator]), (ACTIONS 1279, 1,
       [anon_sym_is]), (ACTIONS 1281, 1, [anon_sym_as]), (ACTIONS 1286, 1, [anon_sym_AMP_AMP]),
       (ACTIONS 1288, 1, [anon_sym_PIPE_PIPE]), (ACTIONS 2332, 1, [anon_sym_QMARK_QMARK]),
       (ACTIONS 2334, 1, [anon_sym_QMARK]), (ACTIONS 2336, 1, [sym_equality_operator]), (ACTIONS
       2338, 1, [anon_sym_PIPE]), (ACTIONS 2340, 1, [anon_sym_CARET]), (ACTIONS 2342, 1,
       [anon_sym_AMP]), (STATE 322, 1, [sym_logical_or_operator]), (STATE 324, 1,
       [sym_logical_and_operator]), (STATE 335, 1, [sym_additive_operator]), (STATE 339, 1,
       [sym_shift_operator]), (STATE 351, 1, [sym_relational_operator]), (STATE 956, 1,
       [sym_type_cast]), (STATE 957, 1, [sym_type_test]), (STATE 1397, 1, [sym__shift_operator]),
       (STATE 1517, 1, [aux_sym_shift_expression_repeat1]), (STATE 1570, 1,
       [aux_sym_logical_or_expression_repeat1]), (STATE 1574, 1,
       [aux_sym_logical_and_expression_repeat1]), (STATE 1582, 1,
       [aux_sym_additive_expression_repeat1]), (STATE 1662, 1, [aux_sym__if_null_expression]),
       (STATE 1663, 1, [aux_sym_bitwise_or_expression_repeat1]), (STATE 1665, 1,
       [aux_sym_bitwise_xor_expression_repeat1]), (STATE 1666, 1,
       [aux_sym_bitwise_and_expression_repeat1]), (STATE 2089, 1, [sym_is_operator]), (STATE
       2090, 1, [sym_as_operator]), (ACTIONS 400, 2, [anon_sym_LT, anon_sym_GT]), (ACTIONS 402,
       2, [anon_sym_LT_EQ, anon_sym_GT_EQ]), (ACTIONS 1271, 2, [anon_sym_LT_LT,
       anon_sym_GT_GT_GT]), (STATE 761, 2, [sym_comment, sym_documentation_comment]), (ACTIONS
       1383, 3, [anon_sym_BANG, anon_sym_DOT, anon_sym_QMARK_DOT]), (ACTIONS 1381, 4,
       [anon_sym_LBRACK, anon_sym_LPAREN, anon_sym_DOT_DOT, anon_sym_QMARK_DOT_DOT])])]"

lemma small_run_195: "small_run 761 27174 ts_small_parse_table_195 762 27307"
  by (simp add: small_simps ts_small_parse_table_195_def)

definition ts_small_parse_table_196 :: "small_group list" where
  "ts_small_parse_table_196 = [
     (27307, 38, [(ACTIONS 3, 1, [anon_sym_SLASH_SLASH]), (ACTIONS 5, 1,
       [anon_sym_SLASH_STAR]), (ACTIONS 7, 1, [anon_sym_SLASH_SLASH_SLASH]), (ACTIONS 9, 1,
       [sym__block_comment]), (ACTIONS 11, 1, [sym__documentation_block_comment]), (ACTIONS 1273,
       1, [anon_sym_GT_GT]), (ACTIONS 1275, 1, [sym__additive_operator]), (ACTIONS 1279, 1,
       [anon_sym_is]), (ACTIONS 1281, 1, [anon_sym_as]), (ACTIONS 2398, 1,
       [anon_sym_QMARK_QMARK]), (ACTIONS 2400, 1, [anon_sym_QMARK]), (ACTIONS 2402, 1,
       [sym_equality_operator]), (ACTIONS 2404, 1, [anon_sym_PIPE]), (ACTIONS 2406, 1,
       [anon_sym_CARET]), (ACTIONS 2408, 1, [anon_sym_AMP]), (STATE 309, 1,
       [sym_logical_and_operator]), (STATE 349, 1, [sym_relational_operator]), (STATE 356, 1,
       [sym_shift_operator]), (STATE 361, 1, [sym_additive_operator]), (STATE 369, 1,
       [sym_logical_or_operator]), (STATE 1397, 1, [sym__shift_operator]), (STATE 1535, 1,
       [aux_sym_shift_expression_repeat1]), (STATE 1554, 1,
       [aux_sym_logical_and_expression_repeat1]), (STATE 1592, 1,
       [aux_sym_logical_or_expression_repeat1]), (STATE 1606, 1,
       [aux_sym_additive_expression_repeat1]), (STATE 1617, 1,
       [aux_sym_bitwise_and_expression_repeat1]), (STATE 1626, 1,
       [aux_sym_bitwise_xor_expression_repeat1]), (STATE 1660, 1,
       [aux_sym_bitwise_or_expression_repeat1]), (STATE 1661, 1, [aux_sym__if_null_expression]),
       (STATE 1669, 1, [sym_type_cast]), (STATE 1709, 1, [sym_type_test]), (STATE 2058, 1,
       [sym_is_operator]), (STATE 2077, 1, [sym_as_operator]), (ACTIONS 400, 2, [anon_sym_LT,
       anon_sym_GT]), (ACTIONS 402, 2, [anon_sym_LT_EQ, anon_sym_GT_EQ]), (ACTIONS 1271, 2,
       [anon_sym_LT_LT, anon_sym_GT_GT_GT]), (STATE 762, 2, [sym_comment,
       sym_documentation_comment]), (ACTIONS 2431, 9, [anon_sym_RBRACE, anon_sym_COMMA,
       anon_sym_RBRACK, anon_sym_COLON, anon_sym_RPAREN, anon_sym_EQ_GT, anon_sym_when,
       anon_sym_AMP_AMP, anon_sym_PIPE_PIPE])])]"

lemma small_run_196: "small_run 762 27307 ts_small_parse_table_196 763 27434"
  by (simp add: small_simps ts_small_parse_table_196_def)

definition ts_small_parse_table_197 :: "small_group list" where
  "ts_small_parse_table_197 = [
     (27434, 40, [(ACTIONS 3, 1, [anon_sym_SLASH_SLASH]), (ACTIONS 5, 1,
       [anon_sym_SLASH_STAR]), (ACTIONS 7, 1, [anon_sym_SLASH_SLASH_SLASH]), (ACTIONS 9, 1,
       [sym__block_comment]), (ACTIONS 11, 1, [sym__documentation_block_comment]), (ACTIONS 1273,
       1, [anon_sym_GT_GT]), (ACTIONS 1275, 1, [sym__additive_operator]), (ACTIONS 1279, 1,
       [anon_sym_is]), (ACTIONS 1281, 1, [anon_sym_as]), (ACTIONS 1286, 1, [anon_sym_AMP_AMP]),
       (ACTIONS 1288, 1, [anon_sym_PIPE_PIPE]), (ACTIONS 2398, 1, [anon_sym_QMARK_QMARK]),
       (ACTIONS 2400, 1, [anon_sym_QMARK]), (ACTIONS 2402, 1, [sym_equality_operator]), (ACTIONS
       2404, 1, [anon_sym_PIPE]), (ACTIONS 2406, 1, [anon_sym_CARET]), (ACTIONS 2408, 1,
       [anon_sym_AMP]), (STATE 309, 1, [sym_logical_and_operator]), (STATE 349, 1,
       [sym_relational_operator]), (STATE 356, 1, [sym_shift_operator]), (STATE 361, 1,
       [sym_additive_operator]), (STATE 369, 1, [sym_logical_or_operator]), (STATE 1397, 1,
       [sym__shift_operator]), (STATE 1535, 1, [aux_sym_shift_expression_repeat1]), (STATE 1554,
       1, [aux_sym_logical_and_expression_repeat1]), (STATE 1592, 1,
       [aux_sym_logical_or_expression_repeat1]), (STATE 1606, 1,
       [aux_sym_additive_expression_repeat1]), (STATE 1617, 1,
       [aux_sym_bitwise_and_expression_repeat1]), (STATE 1626, 1,
       [aux_sym_bitwise_xor_expression_repeat1]), (STATE 1660, 1,
       [aux_sym_bitwise_or_expression_repeat1]), (STATE 1661, 1, [aux_sym__if_null_expression]),
       (STATE 1669, 1, [sym_type_cast]), (STATE 1709, 1, [sym_type_test]), (STATE 2058, 1,
       [sym_is_operator]), (STATE 2077, 1, [sym_as_operator]), (ACTIONS 400, 2, [anon_sym_LT,
       anon_sym_GT]), (ACTIONS 402, 2, [anon_sym_LT_EQ, anon_sym_GT_EQ]), (ACTIONS 1271, 2,
       [anon_sym_LT_LT, anon_sym_GT_GT_GT]), (STATE 763, 2, [sym_comment,
       sym_documentation_comment]), (ACTIONS 1353, 7, [anon_sym_RBRACE, anon_sym_COMMA,
       anon_sym_RBRACK, anon_sym_COLON, anon_sym_RPAREN, anon_sym_EQ_GT, anon_sym_when])])]"

lemma small_run_197: "small_run 763 27434 ts_small_parse_table_197 764 27565"
  by (simp add: small_simps ts_small_parse_table_197_def)

definition ts_small_parse_table_198 :: "small_group list" where
  "ts_small_parse_table_198 = [
     (27565, 47, [(ACTIONS 3, 1, [anon_sym_SLASH_SLASH]), (ACTIONS 5, 1,
       [anon_sym_SLASH_STAR]), (ACTIONS 7, 1, [anon_sym_SLASH_SLASH_SLASH]), (ACTIONS 9, 1,
       [sym__block_comment]), (ACTIONS 11, 1, [sym__documentation_block_comment]), (ACTIONS 17,
       1, [anon_sym_LPAREN]), (ACTIONS 33, 1, [sym_void_type]), (ACTIONS 35, 1, [anon_sym_var]),
       (ACTIONS 45, 1, [anon_sym_Function]), (ACTIONS 67, 1, [anon_sym_late]), (ACTIONS 143, 1,
       [anon_sym_AT]), (ACTIONS 145, 1, [anon_sym_final]), (ACTIONS 153, 1,
       [anon_sym_covariant]), (ACTIONS 159, 1, [anon_sym_this]), (ACTIONS 161, 1,
       [anon_sym_super]), (ACTIONS 446, 1, [anon_sym_required]), (ACTIONS 2262, 1,
       [sym_identifier]), (ACTIONS 2268, 1, [sym_const_builtin]), (ACTIONS 2433, 1,
       [anon_sym_RBRACE]), (STATE 825, 1, [sym__metadata]), (STATE 910, 1, [sym__required]),
       (STATE 1308, 1, [aux_sym__metadata_repeat1]), (STATE 1361, 1, [sym_annotation]), (STATE
       1463, 1, [sym__function_builtin_identifier]), (STATE 1530, 1, [sym__type_name]), (STATE
       1605, 1, [aux_sym__function_type_tails]), (STATE 1704, 1, [sym__function_type_tail]),
       (STATE 1794, 1, [sym__covariant]), (STATE 1796, 1, [sym__type_not_function]), (STATE 1805,
       1, [sym_record_type]), (STATE 1848, 1, [sym_function_type]), (STATE 1896, 1,
       [sym__type_not_void_not_function]), (STATE 1915, 1, [sym__late_builtin]), (STATE 1976, 1,
       [sym_inferred_type]), (STATE 1984, 1, [sym_final_builtin]), (STATE 2464, 1,
       [sym__simple_formal_parameter]), (STATE 2466, 1, [sym__normal_formal_parameter]), (STATE
       2468, 1, [sym__declared_identifier]), (STATE 2557, 1, [sym__final_const_var_or_type]),
       (STATE 2654, 1, [sym_formal_parameter]), (STATE 2755, 1, [sym__var_or_type]), (STATE 2756,
       1, [sym__type]), (STATE 3040, 1, [sym__default_named_parameter]), (STATE 3283, 1,
       [sym_this]), (STATE 3288, 1, [sym_super]), (STATE 764, 2, [sym_comment,
       sym_documentation_comment]), (STATE 2465, 3, [sym__function_formal_parameter,
       sym_super_formal_parameter, sym_constructor_param])])]"

lemma small_run_198: "small_run 764 27565 ts_small_parse_table_198 765 27710"
  by (simp add: small_simps ts_small_parse_table_198_def)

definition ts_small_parse_table_199 :: "small_group list" where
  "ts_small_parse_table_199 = [
     (27710, 40, [(ACTIONS 3, 1, [anon_sym_SLASH_SLASH]), (ACTIONS 5, 1,
       [anon_sym_SLASH_STAR]), (ACTIONS 7, 1, [anon_sym_SLASH_SLASH_SLASH]), (ACTIONS 9, 1,
       [sym__block_comment]), (ACTIONS 11, 1, [sym__documentation_block_comment]), (ACTIONS 1273,
       1, [anon_sym_GT_GT]), (ACTIONS 1275, 1, [sym__additive_operator]), (ACTIONS 1279, 1,
       [anon_sym_is]), (ACTIONS 1281, 1, [anon_sym_as]), (ACTIONS 1286, 1, [anon_sym_AMP_AMP]),
       (ACTIONS 1288, 1, [anon_sym_PIPE_PIPE]), (ACTIONS 2398, 1, [anon_sym_QMARK_QMARK]),
       (ACTIONS 2400, 1, [anon_sym_QMARK]), (ACTIONS 2402, 1, [sym_equality_operator]), (ACTIONS
       2404, 1, [anon_sym_PIPE]), (ACTIONS 2406, 1, [anon_sym_CARET]), (ACTIONS 2408, 1,
       [anon_sym_AMP]), (STATE 309, 1, [sym_logical_and_operator]), (STATE 349, 1,
       [sym_relational_operator]), (STATE 356, 1, [sym_shift_operator]), (STATE 361, 1,
       [sym_additive_operator]), (STATE 369, 1, [sym_logical_or_operator]), (STATE 1397, 1,
       [sym__shift_operator]), (STATE 1535, 1, [aux_sym_shift_expression_repeat1]), (STATE 1554,
       1, [aux_sym_logical_and_expression_repeat1]), (STATE 1592, 1,
       [aux_sym_logical_or_expression_repeat1]), (STATE 1606, 1,
       [aux_sym_additive_expression_repeat1]), (STATE 1617, 1,
       [aux_sym_bitwise_and_expression_repeat1]), (STATE 1626, 1,
       [aux_sym_bitwise_xor_expression_repeat1]), (STATE 1660, 1,
       [aux_sym_bitwise_or_expression_repeat1]), (STATE 1661, 1, [aux_sym__if_null_expression]),
       (STATE 1669, 1, [sym_type_cast]), (STATE 1709, 1, [sym_type_test]), (STATE 2058, 1,
       [sym_is_operator]), (STATE 2077, 1, [sym_as_operator]), (ACTIONS 400, 2, [anon_sym_LT,
       anon_sym_GT]), (ACTIONS 402, 2, [anon_sym_LT_EQ, anon_sym_GT_EQ]), (ACTIONS 1271, 2,
       [anon_sym_LT_LT, anon_sym_GT_GT_GT]), (STATE 765, 2, [sym_comment,
       sym_documentation_comment]), (ACTIONS 1395, 7, [anon_sym_RBRACE, anon_sym_COMMA,
       anon_sym_RBRACK, anon_sym_COLON, anon_sym_RPAREN, anon_sym_EQ_GT, anon_sym_when])])]"

lemma small_run_199: "small_run 765 27710 ts_small_parse_table_199 766 27841"
  by (simp add: small_simps ts_small_parse_table_199_def)

definition ts_small_parse_table_200 :: "small_group list" where
  "ts_small_parse_table_200 = [
     (27841, 12, [(ACTIONS 3, 1, [anon_sym_SLASH_SLASH]), (ACTIONS 5, 1,
       [anon_sym_SLASH_STAR]), (ACTIONS 7, 1, [anon_sym_SLASH_SLASH_SLASH]), (ACTIONS 9, 1,
       [sym__block_comment]), (ACTIONS 11, 1, [sym__documentation_block_comment]), (ACTIONS 2417,
       1, [anon_sym_Function]), (STATE 774, 1, [aux_sym__function_type_tails]), (STATE 777, 1,
       [sym__function_builtin_identifier]), (STATE 868, 1, [sym__function_type_tail]), (STATE
       766, 2, [sym_comment, sym_documentation_comment]), (ACTIONS 2437, 10, [anon_sym_QMARK,
       anon_sym_LT, anon_sym_GT, anon_sym_PIPE, anon_sym_AMP, anon_sym_GT_GT, anon_sym_SLASH,
       anon_sym_BANG, anon_sym_DOT, anon_sym_QMARK_DOT]), (ACTIONS 2435, 29, [anon_sym_RBRACE,
       anon_sym_LBRACK, anon_sym_COMMA, anon_sym_RBRACK, anon_sym_COLON, anon_sym_LPAREN,
       anon_sym_RPAREN, anon_sym_QMARK_QMARK, sym_equality_operator, anon_sym_LT_EQ,
       anon_sym_GT_EQ, anon_sym_CARET, anon_sym_LT_LT, anon_sym_GT_GT_GT, sym__additive_operator,
       anon_sym_STAR, anon_sym_PERCENT, anon_sym_TILDE_SLASH, anon_sym_is, anon_sym_as,
       anon_sym_DOT_DOT, anon_sym_QMARK_DOT_DOT, anon_sym_SEMI, anon_sym_EQ_GT, anon_sym_when,
       anon_sym_case, anon_sym_else, anon_sym_AMP_AMP, anon_sym_PIPE_PIPE])])]"

lemma small_run_200: "small_run 766 27841 ts_small_parse_table_200 767 27916"
  by (simp add: small_simps ts_small_parse_table_200_def)

definition ts_small_parse_table_201 :: "small_group list" where
  "ts_small_parse_table_201 = [
     (27916, 41, [(ACTIONS 3, 1, [anon_sym_SLASH_SLASH]), (ACTIONS 5, 1,
       [anon_sym_SLASH_STAR]), (ACTIONS 7, 1, [anon_sym_SLASH_SLASH_SLASH]), (ACTIONS 9, 1,
       [sym__block_comment]), (ACTIONS 11, 1, [sym__documentation_block_comment]), (ACTIONS 1273,
       1, [anon_sym_GT_GT]), (ACTIONS 1275, 1, [sym__additive_operator]), (ACTIONS 1279, 1,
       [anon_sym_is]), (ACTIONS 1281, 1, [anon_sym_as]), (ACTIONS 1286, 1, [anon_sym_AMP_AMP]),
       (ACTIONS 1288, 1, [anon_sym_PIPE_PIPE]), (ACTIONS 2332, 1, [anon_sym_QMARK_QMARK]),
       (ACTIONS 2334, 1, [anon_sym_QMARK]), (ACTIONS 2336, 1, [sym_equality_operator]), (ACTIONS
       2338, 1, [anon_sym_PIPE]), (ACTIONS 2340, 1, [anon_sym_CARET]), (ACTIONS 2342, 1,
       [anon_sym_AMP]), (STATE 322, 1, [sym_logical_or_operator]), (STATE 324, 1,
       [sym_logical_and_operator]), (STATE 335, 1, [sym_additive_operator]), (STATE 339, 1,
       [sym_shift_operator]), (STATE 351, 1, [sym_relational_operator]), (STATE 956, 1,
       [sym_type_cast]), (STATE 957, 1, [sym_type_test]), (STATE 1397, 1, [sym__shift_operator]),
       (STATE 1517, 1, [aux_sym_shift_expression_repeat1]), (STATE 1570, 1,
       [aux_sym_logical_or_expression_repeat1]), (STATE 1574, 1,
       [aux_sym_logical_and_expression_repeat1]), (STATE 1582, 1,
       [aux_sym_additive_expression_repeat1]), (STATE 1662, 1, [aux_sym__if_null_expression]),
       (STATE 1663, 1, [aux_sym_bitwise_or_expression_repeat1]), (STATE 1665, 1,
       [aux_sym_bitwise_xor_expression_repeat1]), (STATE 1666, 1,
       [aux_sym_bitwise_and_expression_repeat1]), (STATE 2089, 1, [sym_is_operator]), (STATE
       2090, 1, [sym_as_operator]), (ACTIONS 400, 2, [anon_sym_LT, anon_sym_GT]), (ACTIONS 402,
       2, [anon_sym_LT_EQ, anon_sym_GT_EQ]), (ACTIONS 1271, 2, [anon_sym_LT_LT,
       anon_sym_GT_GT_GT]), (STATE 767, 2, [sym_comment, sym_documentation_comment]), (ACTIONS
       1420, 3, [anon_sym_BANG, anon_sym_DOT, anon_sym_QMARK_DOT]), (ACTIONS 1418, 4,
       [anon_sym_LBRACK, anon_sym_LPAREN, anon_sym_DOT_DOT, anon_sym_QMARK_DOT_DOT])])]"

lemma small_run_201: "small_run 767 27916 ts_small_parse_table_201 768 28049"
  by (simp add: small_simps ts_small_parse_table_201_def)

definition ts_small_parse_table_202 :: "small_group list" where
  "ts_small_parse_table_202 = [
     (28049, 41, [(ACTIONS 3, 1, [anon_sym_SLASH_SLASH]), (ACTIONS 5, 1,
       [anon_sym_SLASH_STAR]), (ACTIONS 7, 1, [anon_sym_SLASH_SLASH_SLASH]), (ACTIONS 9, 1,
       [sym__block_comment]), (ACTIONS 11, 1, [sym__documentation_block_comment]), (ACTIONS 1273,
       1, [anon_sym_GT_GT]), (ACTIONS 1275, 1, [sym__additive_operator]), (ACTIONS 1279, 1,
       [anon_sym_is]), (ACTIONS 1281, 1, [anon_sym_as]), (ACTIONS 1286, 1, [anon_sym_AMP_AMP]),
       (ACTIONS 1288, 1, [anon_sym_PIPE_PIPE]), (ACTIONS 2332, 1, [anon_sym_QMARK_QMARK]),
       (ACTIONS 2334, 1, [anon_sym_QMARK]), (ACTIONS 2336, 1, [sym_equality_operator]), (ACTIONS
       2338, 1, [anon_sym_PIPE]), (ACTIONS 2340, 1, [anon_sym_CARET]), (ACTIONS 2342, 1,
       [anon_sym_AMP]), (STATE 322, 1, [sym_logical_or_operator]), (STATE 324, 1,
       [sym_logical_and_operator]), (STATE 335, 1, [sym_additive_operator]), (STATE 339, 1,
       [sym_shift_operator]), (STATE 351, 1, [sym_relational_operator]), (STATE 956, 1,
       [sym_type_cast]), (STATE 957, 1, [sym_type_test]), (STATE 1397, 1, [sym__shift_operator]),
       (STATE 1517, 1, [aux_sym_shift_expression_repeat1]), (STATE 1570, 1,
       [aux_sym_logical_or_expression_repeat1]), (STATE 1574, 1,
       [aux_sym_logical_and_expression_repeat1]), (STATE 1582, 1,
       [aux_sym_additive_expression_repeat1]), (STATE 1662, 1, [aux_sym__if_null_expression]),
       (STATE 1663, 1, [aux_sym_bitwise_or_expression_repeat1]), (STATE 1665, 1,
       [aux_sym_bitwise_xor_expression_repeat1]), (STATE 1666, 1,
       [aux_sym_bitwise_and_expression_repeat1]), (STATE 2089, 1, [sym_is_operator]), (STATE
       2090, 1, [sym_as_operator]), (ACTIONS 400, 2, [anon_sym_LT, anon_sym_GT]), (ACTIONS 402,
       2, [anon_sym_LT_EQ, anon_sym_GT_EQ]), (ACTIONS 1271, 2, [anon_sym_LT_LT,
       anon_sym_GT_GT_GT]), (STATE 768, 2, [sym_comment, sym_documentation_comment]), (ACTIONS
       1397, 3, [anon_sym_BANG, anon_sym_DOT, anon_sym_QMARK_DOT]), (ACTIONS 1395, 4,
       [anon_sym_LBRACK, anon_sym_LPAREN, anon_sym_DOT_DOT, anon_sym_QMARK_DOT_DOT])])]"

lemma small_run_202: "small_run 768 28049 ts_small_parse_table_202 769 28182"
  by (simp add: small_simps ts_small_parse_table_202_def)

definition ts_small_parse_table_203 :: "small_group list" where
  "ts_small_parse_table_203 = [
     (28182, 40, [(ACTIONS 3, 1, [anon_sym_SLASH_SLASH]), (ACTIONS 5, 1,
       [anon_sym_SLASH_STAR]), (ACTIONS 7, 1, [anon_sym_SLASH_SLASH_SLASH]), (ACTIONS 9, 1,
       [sym__block_comment]), (ACTIONS 11, 1, [sym__documentation_block_comment]), (ACTIONS 1273,
       1, [anon_sym_GT_GT]), (ACTIONS 1275, 1, [sym__additive_operator]), (ACTIONS 1279, 1,
       [anon_sym_is]), (ACTIONS 1281, 1, [anon_sym_as]), (ACTIONS 1286, 1, [anon_sym_AMP_AMP]),
       (ACTIONS 1288, 1, [anon_sym_PIPE_PIPE]), (ACTIONS 2398, 1, [anon_sym_QMARK_QMARK]),
       (ACTIONS 2400, 1, [anon_sym_QMARK]), (ACTIONS 2402, 1, [sym_equality_operator]), (ACTIONS
       2404, 1, [anon_sym_PIPE]), (ACTIONS 2406, 1, [anon_sym_CARET]), (ACTIONS 2408, 1,
       [anon_sym_AMP]), (STATE 309, 1, [sym_logical_and_operator]), (STATE 349, 1,
       [sym_relational_operator]), (STATE 356, 1, [sym_shift_operator]), (STATE 361, 1,
       [sym_additive_operator]), (STATE 369, 1, [sym_logical_or_operator]), (STATE 1397, 1,
       [sym__shift_operator]), (STATE 1535, 1, [aux_sym_shift_expression_repeat1]), (STATE 1554,
       1, [aux_sym_logical_and_expression_repeat1]), (STATE 1592, 1,
       [aux_sym_logical_or_expression_repeat1]), (STATE 1606, 1,
       [aux_sym_additive_expression_repeat1]), (STATE 1617, 1,
       [aux_sym_bitwise_and_expression_repeat1]), (STATE 1626, 1,
       [aux_sym_bitwise_xor_expression_repeat1]), (STATE 1660, 1,
       [aux_sym_bitwise_or_expression_repeat1]), (STATE 1661, 1, [aux_sym__if_null_expression]),
       (STATE 1669, 1, [sym_type_cast]), (STATE 1709, 1, [sym_type_test]), (STATE 2058, 1,
       [sym_is_operator]), (STATE 2077, 1, [sym_as_operator]), (ACTIONS 400, 2, [anon_sym_LT,
       anon_sym_GT]), (ACTIONS 402, 2, [anon_sym_LT_EQ, anon_sym_GT_EQ]), (ACTIONS 1271, 2,
       [anon_sym_LT_LT, anon_sym_GT_GT_GT]), (STATE 769, 2, [sym_comment,
       sym_documentation_comment]), (ACTIONS 1418, 7, [anon_sym_RBRACE, anon_sym_COMMA,
       anon_sym_RBRACK, anon_sym_COLON, anon_sym_RPAREN, anon_sym_EQ_GT, anon_sym_when])])]"

lemma small_run_203: "small_run 769 28182 ts_small_parse_table_203 770 28313"
  by (simp add: small_simps ts_small_parse_table_203_def)

definition ts_small_parse_table_204 :: "small_group list" where
  "ts_small_parse_table_204 = [
     (28313, 40, [(ACTIONS 3, 1, [anon_sym_SLASH_SLASH]), (ACTIONS 5, 1,
       [anon_sym_SLASH_STAR]), (ACTIONS 7, 1, [anon_sym_SLASH_SLASH_SLASH]), (ACTIONS 9, 1,
       [sym__block_comment]), (ACTIONS 11, 1, [sym__documentation_block_comment]), (ACTIONS 1273,
       1, [anon_sym_GT_GT]), (ACTIONS 1275, 1, [sym__additive_operator]), (ACTIONS 1279, 1,
       [anon_sym_is]), (ACTIONS 1281, 1, [anon_sym_as]), (ACTIONS 1286, 1, [anon_sym_AMP_AMP]),
       (ACTIONS 1288, 1, [anon_sym_PIPE_PIPE]), (ACTIONS 2398, 1, [anon_sym_QMARK_QMARK]),
       (ACTIONS 2400, 1, [anon_sym_QMARK]), (ACTIONS 2402, 1, [sym_equality_operator]), (ACTIONS
       2404, 1, [anon_sym_PIPE]), (ACTIONS 2406, 1, [anon_sym_CARET]), (ACTIONS 2408, 1,
       [anon_sym_AMP]), (STATE 309, 1, [sym_logical_and_operator]), (STATE 349, 1,
       [sym_relational_operator]), (STATE 356, 1, [sym_shift_operator]), (STATE 361, 1,
       [sym_additive_operator]), (STATE 369, 1, [sym_logical_or_operator]), (STATE 1397, 1,
       [sym__shift_operator]), (STATE 1535, 1, [aux_sym_shift_expression_repeat1]), (STATE 1554,
       1, [aux_sym_logical_and_expression_repeat1]), (STATE 1592, 1,
       [aux_sym_logical_or_expression_repeat1]), (STATE 1606, 1,
       [aux_sym_additive_expression_repeat1]), (STATE 1617, 1,
       [aux_sym_bitwise_and_expression_repeat1]), (STATE 1626, 1,
       [aux_sym_bitwise_xor_expression_repeat1]), (STATE 1660, 1,
       [aux_sym_bitwise_or_expression_repeat1]), (STATE 1661, 1, [aux_sym__if_null_expression]),
       (STATE 1669, 1, [sym_type_cast]), (STATE 1709, 1, [sym_type_test]), (STATE 2058, 1,
       [sym_is_operator]), (STATE 2077, 1, [sym_as_operator]), (ACTIONS 400, 2, [anon_sym_LT,
       anon_sym_GT]), (ACTIONS 402, 2, [anon_sym_LT_EQ, anon_sym_GT_EQ]), (ACTIONS 1271, 2,
       [anon_sym_LT_LT, anon_sym_GT_GT_GT]), (STATE 770, 2, [sym_comment,
       sym_documentation_comment]), (ACTIONS 1432, 7, [anon_sym_RBRACE, anon_sym_COMMA,
       anon_sym_RBRACK, anon_sym_COLON, anon_sym_RPAREN, anon_sym_EQ_GT, anon_sym_when])])]"

lemma small_run_204: "small_run 770 28313 ts_small_parse_table_204 771 28444"
  by (simp add: small_simps ts_small_parse_table_204_def)

definition ts_small_parse_table_205 :: "small_group list" where
  "ts_small_parse_table_205 = [
     (28444, 40, [(ACTIONS 3, 1, [anon_sym_SLASH_SLASH]), (ACTIONS 5, 1,
       [anon_sym_SLASH_STAR]), (ACTIONS 7, 1, [anon_sym_SLASH_SLASH_SLASH]), (ACTIONS 9, 1,
       [sym__block_comment]), (ACTIONS 11, 1, [sym__documentation_block_comment]), (ACTIONS 1273,
       1, [anon_sym_GT_GT]), (ACTIONS 1275, 1, [sym__additive_operator]), (ACTIONS 1279, 1,
       [anon_sym_is]), (ACTIONS 1281, 1, [anon_sym_as]), (ACTIONS 1286, 1, [anon_sym_AMP_AMP]),
       (ACTIONS 1288, 1, [anon_sym_PIPE_PIPE]), (ACTIONS 2398, 1, [anon_sym_QMARK_QMARK]),
       (ACTIONS 2400, 1, [anon_sym_QMARK]), (ACTIONS 2402, 1, [sym_equality_operator]), (ACTIONS
       2404, 1, [anon_sym_PIPE]), (ACTIONS 2406, 1, [anon_sym_CARET]), (ACTIONS 2408, 1,
       [anon_sym_AMP]), (STATE 309, 1, [sym_logical_and_operator]), (STATE 349, 1,
       [sym_relational_operator]), (STATE 356, 1, [sym_shift_operator]), (STATE 361, 1,
       [sym_additive_operator]), (STATE 369, 1, [sym_logical_or_operator]), (STATE 1397, 1,
       [sym__shift_operator]), (STATE 1535, 1, [aux_sym_shift_expression_repeat1]), (STATE 1554,
       1, [aux_sym_logical_and_expression_repeat1]), (STATE 1592, 1,
       [aux_sym_logical_or_expression_repeat1]), (STATE 1606, 1,
       [aux_sym_additive_expression_repeat1]), (STATE 1617, 1,
       [aux_sym_bitwise_and_expression_repeat1]), (STATE 1626, 1,
       [aux_sym_bitwise_xor_expression_repeat1]), (STATE 1660, 1,
       [aux_sym_bitwise_or_expression_repeat1]), (STATE 1661, 1, [aux_sym__if_null_expression]),
       (STATE 1669, 1, [sym_type_cast]), (STATE 1709, 1, [sym_type_test]), (STATE 2058, 1,
       [sym_is_operator]), (STATE 2077, 1, [sym_as_operator]), (ACTIONS 400, 2, [anon_sym_LT,
       anon_sym_GT]), (ACTIONS 402, 2, [anon_sym_LT_EQ, anon_sym_GT_EQ]), (ACTIONS 1271, 2,
       [anon_sym_LT_LT, anon_sym_GT_GT_GT]), (STATE 771, 2, [sym_comment,
       sym_documentation_comment]), (ACTIONS 1414, 7, [anon_sym_RBRACE, anon_sym_COMMA,
       anon_sym_RBRACK, anon_sym_COLON, anon_sym_RPAREN, anon_sym_EQ_GT, anon_sym_when])])]"

lemma small_run_205: "small_run 771 28444 ts_small_parse_table_205 772 28575"
  by (simp add: small_simps ts_small_parse_table_205_def)

definition ts_small_parse_table_206 :: "small_group list" where
  "ts_small_parse_table_206 = [
     (28575, 41, [(ACTIONS 3, 1, [anon_sym_SLASH_SLASH]), (ACTIONS 5, 1,
       [anon_sym_SLASH_STAR]), (ACTIONS 7, 1, [anon_sym_SLASH_SLASH_SLASH]), (ACTIONS 9, 1,
       [sym__block_comment]), (ACTIONS 11, 1, [sym__documentation_block_comment]), (ACTIONS 1273,
       1, [anon_sym_GT_GT]), (ACTIONS 1275, 1, [sym__additive_operator]), (ACTIONS 1279, 1,
       [anon_sym_is]), (ACTIONS 1281, 1, [anon_sym_as]), (ACTIONS 1286, 1, [anon_sym_AMP_AMP]),
       (ACTIONS 1288, 1, [anon_sym_PIPE_PIPE]), (ACTIONS 2332, 1, [anon_sym_QMARK_QMARK]),
       (ACTIONS 2334, 1, [anon_sym_QMARK]), (ACTIONS 2336, 1, [sym_equality_operator]), (ACTIONS
       2338, 1, [anon_sym_PIPE]), (ACTIONS 2340, 1, [anon_sym_CARET]), (ACTIONS 2342, 1,
       [anon_sym_AMP]), (STATE 322, 1, [sym_logical_or_operator]), (STATE 324, 1,
       [sym_logical_and_operator]), (STATE 335, 1, [sym_additive_operator]), (STATE 339, 1,
       [sym_shift_operator]), (STATE 351, 1, [sym_relational_operator]), (STATE 956, 1,
       [sym_type_cast]), (STATE 957, 1, [sym_type_test]), (STATE 1397, 1, [sym__shift_operator]),
       (STATE 1517, 1, [aux_sym_shift_expression_repeat1]), (STATE 1570, 1,
       [aux_sym_logical_or_expression_repeat1]), (STATE 1574, 1,
       [aux_sym_logical_and_expression_repeat1]), (STATE 1582, 1,
       [aux_sym_additive_expression_repeat1]), (STATE 1662, 1, [aux_sym__if_null_expression]),
       (STATE 1663, 1, [aux_sym_bitwise_or_expression_repeat1]), (STATE 1665, 1,
       [aux_sym_bitwise_xor_expression_repeat1]), (STATE 1666, 1,
       [aux_sym_bitwise_and_expression_repeat1]), (STATE 2089, 1, [sym_is_operator]), (STATE
       2090, 1, [sym_as_operator]), (ACTIONS 400, 2, [anon_sym_LT, anon_sym_GT]), (ACTIONS 402,
       2, [anon_sym_LT_EQ, anon_sym_GT_EQ]), (ACTIONS 1271, 2, [anon_sym_LT_LT,
       anon_sym_GT_GT_GT]), (STATE 772, 2, [sym_comment, sym_documentation_comment]), (ACTIONS
       1408, 3, [anon_sym_BANG, anon_sym_DOT, anon_sym_QMARK_DOT]), (ACTIONS 1406, 4,
       [anon_sym_LBRACK, anon_sym_LPAREN, anon_sym_DOT_DOT, anon_sym_QMARK_DOT_DOT])])]"

lemma small_run_206: "small_run 772 28575 ts_small_parse_table_206 773 28708"
  by (simp add: small_simps ts_small_parse_table_206_def)

definition ts_small_parse_table_207 :: "small_group list" where
  "ts_small_parse_table_207 = [
     (28708, 37, [(ACTIONS 3, 1, [anon_sym_SLASH_SLASH]), (ACTIONS 5, 1,
       [anon_sym_SLASH_STAR]), (ACTIONS 7, 1, [anon_sym_SLASH_SLASH_SLASH]), (ACTIONS 9, 1,
       [sym__block_comment]), (ACTIONS 11, 1, [sym__documentation_block_comment]), (ACTIONS 1273,
       1, [anon_sym_GT_GT]), (ACTIONS 1275, 1, [sym__additive_operator]), (ACTIONS 1279, 1,
       [anon_sym_is]), (ACTIONS 1281, 1, [anon_sym_as]), (ACTIONS 1401, 1, [anon_sym_QMARK]),
       (ACTIONS 2404, 1, [anon_sym_PIPE]), (ACTIONS 2406, 1, [anon_sym_CARET]), (ACTIONS 2408, 1,
       [anon_sym_AMP]), (ACTIONS 2439, 1, [sym_equality_operator]), (STATE 309, 1,
       [sym_logical_and_operator]), (STATE 349, 1, [sym_relational_operator]), (STATE 356, 1,
       [sym_shift_operator]), (STATE 361, 1, [sym_additive_operator]), (STATE 369, 1,
       [sym_logical_or_operator]), (STATE 1397, 1, [sym__shift_operator]), (STATE 1535, 1,
       [aux_sym_shift_expression_repeat1]), (STATE 1554, 1,
       [aux_sym_logical_and_expression_repeat1]), (STATE 1592, 1,
       [aux_sym_logical_or_expression_repeat1]), (STATE 1606, 1,
       [aux_sym_additive_expression_repeat1]), (STATE 1617, 1,
       [aux_sym_bitwise_and_expression_repeat1]), (STATE 1626, 1,
       [aux_sym_bitwise_xor_expression_repeat1]), (STATE 1660, 1,
       [aux_sym_bitwise_or_expression_repeat1]), (STATE 1661, 1, [aux_sym__if_null_expression]),
       (STATE 1669, 1, [sym_type_cast]), (STATE 1709, 1, [sym_type_test]), (STATE 2058, 1,
       [sym_is_operator]), (STATE 2077, 1, [sym_as_operator]), (ACTIONS 400, 2, [anon_sym_LT,
       anon_sym_GT]), (ACTIONS 402, 2, [anon_sym_LT_EQ, anon_sym_GT_EQ]), (ACTIONS 1271, 2,
       [anon_sym_LT_LT, anon_sym_GT_GT_GT]), (STATE 773, 2, [sym_comment,
       sym_documentation_comment]), (ACTIONS 1399, 10, [anon_sym_RBRACE, anon_sym_COMMA,
       anon_sym_RBRACK, anon_sym_COLON, anon_sym_RPAREN, anon_sym_QMARK_QMARK, anon_sym_EQ_GT,
       anon_sym_when, anon_sym_AMP_AMP, anon_sym_PIPE_PIPE])]),
     (28833, 11, [(ACTIONS 3, 1, [anon_sym_SLASH_SLASH]), (ACTIONS 5, 1,
       [anon_sym_SLASH_STAR]), (ACTIONS 7, 1, [anon_sym_SLASH_SLASH_SLASH]), (ACTIONS 9, 1,
       [sym__block_comment]), (ACTIONS 11, 1, [sym__documentation_block_comment]), (ACTIONS 2446,
       1, [anon_sym_Function]), (STATE 777, 1, [sym__function_builtin_identifier]), (STATE 868,
       1, [sym__function_type_tail]), (STATE 774, 3, [aux_sym__function_type_tails, sym_comment,
       sym_documentation_comment]), (ACTIONS 2444, 10, [anon_sym_QMARK, anon_sym_LT, anon_sym_GT,
       anon_sym_PIPE, anon_sym_AMP, anon_sym_GT_GT, anon_sym_SLASH, anon_sym_BANG, anon_sym_DOT,
       anon_sym_QMARK_DOT]), (ACTIONS 2442, 29, [anon_sym_RBRACE, anon_sym_LBRACK,
       anon_sym_COMMA, anon_sym_RBRACK, anon_sym_COLON, anon_sym_LPAREN, anon_sym_RPAREN,
       anon_sym_QMARK_QMARK, sym_equality_operator, anon_sym_LT_EQ, anon_sym_GT_EQ,
       anon_sym_CARET, anon_sym_LT_LT, anon_sym_GT_GT_GT, sym__additive_operator, anon_sym_STAR,
       anon_sym_PERCENT, anon_sym_TILDE_SLASH, anon_sym_is, anon_sym_as, anon_sym_DOT_DOT,
       anon_sym_QMARK_DOT_DOT, anon_sym_SEMI, anon_sym_EQ_GT, anon_sym_when, anon_sym_case,
       anon_sym_else, anon_sym_AMP_AMP, anon_sym_PIPE_PIPE])])]"

lemma small_run_207: "small_run 773 28708 ts_small_parse_table_207 775 28906"
  by (simp add: small_simps ts_small_parse_table_207_def)

definition ts_small_parse_table_208 :: "small_group list" where
  "ts_small_parse_table_208 = [
     (28906, 40, [(ACTIONS 3, 1, [anon_sym_SLASH_SLASH]), (ACTIONS 5, 1,
       [anon_sym_SLASH_STAR]), (ACTIONS 7, 1, [anon_sym_SLASH_SLASH_SLASH]), (ACTIONS 9, 1,
       [sym__block_comment]), (ACTIONS 11, 1, [sym__documentation_block_comment]), (ACTIONS 1273,
       1, [anon_sym_GT_GT]), (ACTIONS 1275, 1, [sym__additive_operator]), (ACTIONS 1279, 1,
       [anon_sym_is]), (ACTIONS 1281, 1, [anon_sym_as]), (ACTIONS 1286, 1, [anon_sym_AMP_AMP]),
       (ACTIONS 1288, 1, [anon_sym_PIPE_PIPE]), (ACTIONS 2398, 1, [anon_sym_QMARK_QMARK]),
       (ACTIONS 2400, 1, [anon_sym_QMARK]), (ACTIONS 2402, 1, [sym_equality_operator]), (ACTIONS
       2404, 1, [anon_sym_PIPE]), (ACTIONS 2406, 1, [anon_sym_CARET]), (ACTIONS 2408, 1,
       [anon_sym_AMP]), (STATE 309, 1, [sym_logical_and_operator]), (STATE 349, 1,
       [sym_relational_operator]), (STATE 356, 1, [sym_shift_operator]), (STATE 361, 1,
       [sym_additive_operator]), (STATE 369, 1, [sym_logical_or_operator]), (STATE 1397, 1,
       [sym__shift_operator]), (STATE 1535, 1, [aux_sym_shift_expression_repeat1]), (STATE 1554,
       1, [aux_sym_logical_and_expression_repeat1]), (STATE 1592, 1,
       [aux_sym_logical_or_expression_repeat1]), (STATE 1606, 1,
       [aux_sym_additive_expression_repeat1]), (STATE 1617, 1,
       [aux_sym_bitwise_and_expression_repeat1]), (STATE 1626, 1,
       [aux_sym_bitwise_xor_expression_repeat1]), (STATE 1660, 1,
       [aux_sym_bitwise_or_expression_repeat1]), (STATE 1661, 1, [aux_sym__if_null_expression]),
       (STATE 1669, 1, [sym_type_cast]), (STATE 1709, 1, [sym_type_test]), (STATE 2058, 1,
       [sym_is_operator]), (STATE 2077, 1, [sym_as_operator]), (ACTIONS 400, 2, [anon_sym_LT,
       anon_sym_GT]), (ACTIONS 402, 2, [anon_sym_LT_EQ, anon_sym_GT_EQ]), (ACTIONS 1271, 2,
       [anon_sym_LT_LT, anon_sym_GT_GT_GT]), (STATE 775, 2, [sym_comment,
       sym_documentation_comment]), (ACTIONS 1381, 7, [anon_sym_RBRACE, anon_sym_COMMA,
       anon_sym_RBRACK, anon_sym_COLON, anon_sym_RPAREN, anon_sym_EQ_GT, anon_sym_when])])]"

lemma small_run_208: "small_run 775 28906 ts_small_parse_table_208 776 29037"
  by (simp add: small_simps ts_small_parse_table_208_def)

definition ts_small_parse_table_209 :: "small_group list" where
  "ts_small_parse_table_209 = [
     (29037, 41, [(ACTIONS 3, 1, [anon_sym_SLASH_SLASH]), (ACTIONS 5, 1,
       [anon_sym_SLASH_STAR]), (ACTIONS 7, 1, [anon_sym_SLASH_SLASH_SLASH]), (ACTIONS 9, 1,
       [sym__block_comment]), (ACTIONS 11, 1, [sym__documentation_block_comment]), (ACTIONS 1273,
       1, [anon_sym_GT_GT]), (ACTIONS 1275, 1, [sym__additive_operator]), (ACTIONS 1279, 1,
       [anon_sym_is]), (ACTIONS 1281, 1, [anon_sym_as]), (ACTIONS 1286, 1, [anon_sym_AMP_AMP]),
       (ACTIONS 1288, 1, [anon_sym_PIPE_PIPE]), (ACTIONS 2332, 1, [anon_sym_QMARK_QMARK]),
       (ACTIONS 2334, 1, [anon_sym_QMARK]), (ACTIONS 2336, 1, [sym_equality_operator]), (ACTIONS
       2338, 1, [anon_sym_PIPE]), (ACTIONS 2340, 1, [anon_sym_CARET]), (ACTIONS 2342, 1,
       [anon_sym_AMP]), (STATE 322, 1, [sym_logical_or_operator]), (STATE 324, 1,
       [sym_logical_and_operator]), (STATE 335, 1, [sym_additive_operator]), (STATE 339, 1,
       [sym_shift_operator]), (STATE 351, 1, [sym_relational_operator]), (STATE 956, 1,
       [sym_type_cast]), (STATE 957, 1, [sym_type_test]), (STATE 1397, 1, [sym__shift_operator]),
       (STATE 1517, 1, [aux_sym_shift_expression_repeat1]), (STATE 1570, 1,
       [aux_sym_logical_or_expression_repeat1]), (STATE 1574, 1,
       [aux_sym_logical_and_expression_repeat1]), (STATE 1582, 1,
       [aux_sym_additive_expression_repeat1]), (STATE 1662, 1, [aux_sym__if_null_expression]),
       (STATE 1663, 1, [aux_sym_bitwise_or_expression_repeat1]), (STATE 1665, 1,
       [aux_sym_bitwise_xor_expression_repeat1]), (STATE 1666, 1,
       [aux_sym_bitwise_and_expression_repeat1]), (STATE 2089, 1, [sym_is_operator]), (STATE
       2090, 1, [sym_as_operator]), (ACTIONS 400, 2, [anon_sym_LT, anon_sym_GT]), (ACTIONS 402,
       2, [anon_sym_LT_EQ, anon_sym_GT_EQ]), (ACTIONS 1271, 2, [anon_sym_LT_LT,
       anon_sym_GT_GT_GT]), (STATE 776, 2, [sym_comment, sym_documentation_comment]), (ACTIONS
       1434, 3, [anon_sym_BANG, anon_sym_DOT, anon_sym_QMARK_DOT]), (ACTIONS 1432, 4,
       [anon_sym_LBRACK, anon_sym_LPAREN, anon_sym_DOT_DOT, anon_sym_QMARK_DOT_DOT])])]"

lemma small_run_209: "small_run 776 29037 ts_small_parse_table_209 777 29170"
  by (simp add: small_simps ts_small_parse_table_209_def)

definition ts_small_parse_table_210 :: "small_group list" where
  "ts_small_parse_table_210 = [
     (29170, 14, [(ACTIONS 3, 1, [anon_sym_SLASH_SLASH]), (ACTIONS 5, 1,
       [anon_sym_SLASH_STAR]), (ACTIONS 7, 1, [anon_sym_SLASH_SLASH_SLASH]), (ACTIONS 9, 1,
       [sym__block_comment]), (ACTIONS 11, 1, [sym__documentation_block_comment]), (ACTIONS 2451,
       1, [anon_sym_LPAREN]), (ACTIONS 2454, 1, [anon_sym_QMARK]), (ACTIONS 2457, 1,
       [anon_sym_LT]), (STATE 795, 1, [sym_type_parameters]), (STATE 801, 1,
       [sym_nullable_type]), (STATE 827, 1, [sym_parameter_type_list]), (STATE 777, 2,
       [sym_comment, sym_documentation_comment]), (ACTIONS 2460, 8, [anon_sym_GT, anon_sym_PIPE,
       anon_sym_AMP, anon_sym_GT_GT, anon_sym_SLASH, anon_sym_BANG, anon_sym_DOT,
       anon_sym_QMARK_DOT]), (ACTIONS 2449, 29, [anon_sym_RBRACE, anon_sym_LBRACK,
       anon_sym_COMMA, anon_sym_RBRACK, anon_sym_COLON, anon_sym_RPAREN, anon_sym_QMARK_QMARK,
       sym_equality_operator, anon_sym_LT_EQ, anon_sym_GT_EQ, anon_sym_CARET, anon_sym_LT_LT,
       anon_sym_GT_GT_GT, sym__additive_operator, anon_sym_STAR, anon_sym_PERCENT,
       anon_sym_TILDE_SLASH, anon_sym_is, anon_sym_as, anon_sym_DOT_DOT, anon_sym_QMARK_DOT_DOT,
       anon_sym_SEMI, anon_sym_EQ_GT, anon_sym_when, anon_sym_case, anon_sym_else,
       anon_sym_Function, anon_sym_AMP_AMP, anon_sym_PIPE_PIPE])])]"

lemma small_run_210: "small_run 777 29170 ts_small_parse_table_210 778 29249"
  by (simp add: small_simps ts_small_parse_table_210_def)

definition ts_small_parse_table_211 :: "small_group list" where
  "ts_small_parse_table_211 = [
     (29249, 41, [(ACTIONS 3, 1, [anon_sym_SLASH_SLASH]), (ACTIONS 5, 1,
       [anon_sym_SLASH_STAR]), (ACTIONS 7, 1, [anon_sym_SLASH_SLASH_SLASH]), (ACTIONS 9, 1,
       [sym__block_comment]), (ACTIONS 11, 1, [sym__documentation_block_comment]), (ACTIONS 1273,
       1, [anon_sym_GT_GT]), (ACTIONS 1275, 1, [sym__additive_operator]), (ACTIONS 1279, 1,
       [anon_sym_is]), (ACTIONS 1281, 1, [anon_sym_as]), (ACTIONS 1286, 1, [anon_sym_AMP_AMP]),
       (ACTIONS 1288, 1, [anon_sym_PIPE_PIPE]), (ACTIONS 2332, 1, [anon_sym_QMARK_QMARK]),
       (ACTIONS 2334, 1, [anon_sym_QMARK]), (ACTIONS 2336, 1, [sym_equality_operator]), (ACTIONS
       2338, 1, [anon_sym_PIPE]), (ACTIONS 2340, 1, [anon_sym_CARET]), (ACTIONS 2342, 1,
       [anon_sym_AMP]), (STATE 322, 1, [sym_logical_or_operator]), (STATE 324, 1,
       [sym_logical_and_operator]), (STATE 335, 1, [sym_additive_operator]), (STATE 339, 1,
       [sym_shift_operator]), (STATE 351, 1, [sym_relational_operator]), (STATE 956, 1,
       [sym_type_cast]), (STATE 957, 1, [sym_type_test]), (STATE 1397, 1, [sym__shift_operator]),
       (STATE 1517, 1, [aux_sym_shift_expression_repeat1]), (STATE 1570, 1,
       [aux_sym_logical_or_expression_repeat1]), (STATE 1574, 1,
       [aux_sym_logical_and_expression_repeat1]), (STATE 1582, 1,
       [aux_sym_additive_expression_repeat1]), (STATE 1662, 1, [aux_sym__if_null_expression]),
       (STATE 1663, 1, [aux_sym_bitwise_or_expression_repeat1]), (STATE 1665, 1,
       [aux_sym_bitwise_xor_expression_repeat1]), (STATE 1666, 1,
       [aux_sym_bitwise_and_expression_repeat1]), (STATE 2089, 1, [sym_is_operator]), (STATE
       2090, 1, [sym_as_operator]), (ACTIONS 400, 2, [anon_sym_LT, anon_sym_GT]), (ACTIONS 402,
       2, [anon_sym_LT_EQ, anon_sym_GT_EQ]), (ACTIONS 1271, 2, [anon_sym_LT_LT,
       anon_sym_GT_GT_GT]), (STATE 778, 2, [sym_comment, sym_documentation_comment]), (ACTIONS
       1355, 3, [anon_sym_BANG, anon_sym_DOT, anon_sym_QMARK_DOT]), (ACTIONS 1353, 4,
       [anon_sym_LBRACK, anon_sym_LPAREN, anon_sym_DOT_DOT, anon_sym_QMARK_DOT_DOT])])]"

lemma small_run_211: "small_run 778 29249 ts_small_parse_table_211 779 29382"
  by (simp add: small_simps ts_small_parse_table_211_def)

definition ts_small_parse_table_212 :: "small_group list" where
  "ts_small_parse_table_212 = [
     (29382, 36, [(ACTIONS 3, 1, [anon_sym_SLASH_SLASH]), (ACTIONS 5, 1,
       [anon_sym_SLASH_STAR]), (ACTIONS 7, 1, [anon_sym_SLASH_SLASH_SLASH]), (ACTIONS 9, 1,
       [sym__block_comment]), (ACTIONS 11, 1, [sym__documentation_block_comment]), (ACTIONS 1273,
       1, [anon_sym_GT_GT]), (ACTIONS 1275, 1, [sym__additive_operator]), (ACTIONS 1279, 1,
       [anon_sym_is]), (ACTIONS 1281, 1, [anon_sym_as]), (ACTIONS 2338, 1, [anon_sym_PIPE]),
       (ACTIONS 2340, 1, [anon_sym_CARET]), (ACTIONS 2342, 1, [anon_sym_AMP]), (STATE 322, 1,
       [sym_logical_or_operator]), (STATE 324, 1, [sym_logical_and_operator]), (STATE 335, 1,
       [sym_additive_operator]), (STATE 339, 1, [sym_shift_operator]), (STATE 351, 1,
       [sym_relational_operator]), (STATE 956, 1, [sym_type_cast]), (STATE 957, 1,
       [sym_type_test]), (STATE 1397, 1, [sym__shift_operator]), (STATE 1517, 1,
       [aux_sym_shift_expression_repeat1]), (STATE 1570, 1,
       [aux_sym_logical_or_expression_repeat1]), (STATE 1574, 1,
       [aux_sym_logical_and_expression_repeat1]), (STATE 1582, 1,
       [aux_sym_additive_expression_repeat1]), (STATE 1662, 1, [aux_sym__if_null_expression]),
       (STATE 1663, 1, [aux_sym_bitwise_or_expression_repeat1]), (STATE 1665, 1,
       [aux_sym_bitwise_xor_expression_repeat1]), (STATE 1666, 1,
       [aux_sym_bitwise_and_expression_repeat1]), (STATE 2089, 1, [sym_is_operator]), (STATE
       2090, 1, [sym_as_operator]), (ACTIONS 1271, 2, [anon_sym_LT_LT, anon_sym_GT_GT_GT]),
       (ACTIONS 1426, 2, [anon_sym_LT, anon_sym_GT]), (ACTIONS 1429, 2, [anon_sym_LT_EQ,
       anon_sym_GT_EQ]), (STATE 779, 2, [sym_comment, sym_documentation_comment]), (ACTIONS 1424,
       4, [anon_sym_QMARK, anon_sym_BANG, anon_sym_DOT, anon_sym_QMARK_DOT]), (ACTIONS 1422, 8,
       [anon_sym_LBRACK, anon_sym_LPAREN, anon_sym_QMARK_QMARK, sym_equality_operator,
       anon_sym_DOT_DOT, anon_sym_QMARK_DOT_DOT, anon_sym_AMP_AMP, anon_sym_PIPE_PIPE])])]"

lemma small_run_212: "small_run 779 29382 ts_small_parse_table_212 780 29505"
  by (simp add: small_simps ts_small_parse_table_212_def)

definition ts_small_parse_table_213 :: "small_group list" where
  "ts_small_parse_table_213 = [
     (29505, 41, [(ACTIONS 3, 1, [anon_sym_SLASH_SLASH]), (ACTIONS 5, 1,
       [anon_sym_SLASH_STAR]), (ACTIONS 7, 1, [anon_sym_SLASH_SLASH_SLASH]), (ACTIONS 9, 1,
       [sym__block_comment]), (ACTIONS 11, 1, [sym__documentation_block_comment]), (ACTIONS 1273,
       1, [anon_sym_GT_GT]), (ACTIONS 1275, 1, [sym__additive_operator]), (ACTIONS 1279, 1,
       [anon_sym_is]), (ACTIONS 1281, 1, [anon_sym_as]), (ACTIONS 1286, 1, [anon_sym_AMP_AMP]),
       (ACTIONS 1288, 1, [anon_sym_PIPE_PIPE]), (ACTIONS 2332, 1, [anon_sym_QMARK_QMARK]),
       (ACTIONS 2334, 1, [anon_sym_QMARK]), (ACTIONS 2336, 1, [sym_equality_operator]), (ACTIONS
       2338, 1, [anon_sym_PIPE]), (ACTIONS 2340, 1, [anon_sym_CARET]), (ACTIONS 2342, 1,
       [anon_sym_AMP]), (STATE 322, 1, [sym_logical_or_operator]), (STATE 324, 1,
       [sym_logical_and_operator]), (STATE 335, 1, [sym_additive_operator]), (STATE 339, 1,
       [sym_shift_operator]), (STATE 351, 1, [sym_relational_operator]), (STATE 956, 1,
       [sym_type_cast]), (STATE 957, 1, [sym_type_test]), (STATE 1397, 1, [sym__shift_operator]),
       (STATE 1517, 1, [aux_sym_shift_expression_repeat1]), (STATE 1570, 1,
       [aux_sym_logical_or_expression_repeat1]), (STATE 1574, 1,
       [aux_sym_logical_and_expression_repeat1]), (STATE 1582, 1,
       [aux_sym_additive_expression_repeat1]), (STATE 1662, 1, [aux_sym__if_null_expression]),
       (STATE 1663, 1, [aux_sym_bitwise_or_expression_repeat1]), (STATE 1665, 1,
       [aux_sym_bitwise_xor_expression_repeat1]), (STATE 1666, 1,
       [aux_sym_bitwise_and_expression_repeat1]), (STATE 2089, 1, [sym_is_operator]), (STATE
       2090, 1, [sym_as_operator]), (ACTIONS 400, 2, [anon_sym_LT, anon_sym_GT]), (ACTIONS 402,
       2, [anon_sym_LT_EQ, anon_sym_GT_EQ]), (ACTIONS 1271, 2, [anon_sym_LT_LT,
       anon_sym_GT_GT_GT]), (STATE 780, 2, [sym_comment, sym_documentation_comment]), (ACTIONS
       1359, 3, [anon_sym_BANG, anon_sym_DOT, anon_sym_QMARK_DOT]), (ACTIONS 1357, 4,
       [anon_sym_LBRACK, anon_sym_LPAREN, anon_sym_DOT_DOT, anon_sym_QMARK_DOT_DOT])])]"

lemma small_run_213: "small_run 780 29505 ts_small_parse_table_213 781 29638"
  by (simp add: small_simps ts_small_parse_table_213_def)

definition ts_small_parse_table_214 :: "small_group list" where
  "ts_small_parse_table_214 = [
     (29638, 26, [(ACTIONS 3, 1, [anon_sym_SLASH_SLASH]), (ACTIONS 5, 1,
       [anon_sym_SLASH_STAR]), (ACTIONS 7, 1, [anon_sym_SLASH_SLASH_SLASH]), (ACTIONS 9, 1,
       [sym__block_comment]), (ACTIONS 11, 1, [sym__documentation_block_comment]), (ACTIONS 1067,
       1, [anon_sym_EQ]), (ACTIONS 2419, 1, [anon_sym_LBRACK]), (ACTIONS 2421, 1,
       [anon_sym_LPAREN]), (ACTIONS 2423, 1, [anon_sym_QMARK]), (ACTIONS 2425, 1, [anon_sym_LT]),
       (ACTIONS 2427, 1, [anon_sym_DOT]), (ACTIONS 2429, 1, [anon_sym_QMARK_DOT]), (STATE 293, 1,
       [sym__assignment_operator]), (STATE 874, 1, [aux_sym_cascade_section_repeat1]), (STATE
       980, 1, [sym__cascade_assignment_section]), (STATE 997, 1, [sym__assignable_selector]),
       (STATE 1074, 1, [aux_sym_cascade_section_repeat2]), (STATE 1088, 1, [sym_argument_part]),
       (STATE 1109, 1, [sym_arguments]), (STATE 1141, 1, [sym__cascade_subsection]), (STATE 1145,
       1, [sym_index_selector]), (STATE 3052, 1, [sym_type_arguments]), (STATE 781, 2,
       [sym_comment, sym_documentation_comment]), (STATE 1138, 2,
       [sym_unconditional_assignable_selector, sym_conditional_assignable_selector]), (ACTIONS
       1065, 11, [anon_sym_RBRACE, anon_sym_COMMA, anon_sym_RBRACK, anon_sym_COLON,
       anon_sym_RPAREN, anon_sym_DOT_DOT, anon_sym_QMARK_DOT_DOT, anon_sym_SEMI, anon_sym_EQ_GT,
       anon_sym_case, anon_sym_else]), (ACTIONS 1069, 13, [anon_sym_PLUS_EQ, anon_sym_DASH_EQ,
       anon_sym_STAR_EQ, anon_sym_SLASH_EQ, anon_sym_PERCENT_EQ, anon_sym_TILDE_SLASH_EQ,
       anon_sym_LT_LT_EQ, anon_sym_GT_GT_EQ, anon_sym_GT_GT_GT_EQ, anon_sym_AMP_EQ,
       anon_sym_CARET_EQ, anon_sym_PIPE_EQ, anon_sym_QMARK_QMARK_EQ])])]"

lemma small_run_214: "small_run 781 29638 ts_small_parse_table_214 782 29741"
  by (simp add: small_simps ts_small_parse_table_214_def)

definition ts_small_parse_table_215 :: "small_group list" where
  "ts_small_parse_table_215 = [
     (29741, 41, [(ACTIONS 3, 1, [anon_sym_SLASH_SLASH]), (ACTIONS 5, 1,
       [anon_sym_SLASH_STAR]), (ACTIONS 7, 1, [anon_sym_SLASH_SLASH_SLASH]), (ACTIONS 9, 1,
       [sym__block_comment]), (ACTIONS 11, 1, [sym__documentation_block_comment]), (ACTIONS 1273,
       1, [anon_sym_GT_GT]), (ACTIONS 1275, 1, [sym__additive_operator]), (ACTIONS 1279, 1,
       [anon_sym_is]), (ACTIONS 1281, 1, [anon_sym_as]), (ACTIONS 1286, 1, [anon_sym_AMP_AMP]),
       (ACTIONS 1288, 1, [anon_sym_PIPE_PIPE]), (ACTIONS 2332, 1, [anon_sym_QMARK_QMARK]),
       (ACTIONS 2334, 1, [anon_sym_QMARK]), (ACTIONS 2336, 1, [sym_equality_operator]), (ACTIONS
       2338, 1, [anon_sym_PIPE]), (ACTIONS 2340, 1, [anon_sym_CARET]), (ACTIONS 2342, 1,
       [anon_sym_AMP]), (STATE 322, 1, [sym_logical_or_operator]), (STATE 324, 1,
       [sym_logical_and_operator]), (STATE 335, 1, [sym_additive_operator]), (STATE 339, 1,
       [sym_shift_operator]), (STATE 351, 1, [sym_relational_operator]), (STATE 956, 1,
       [sym_type_cast]), (STATE 957, 1, [sym_type_test]), (STATE 1397, 1, [sym__shift_operator]),
       (STATE 1517, 1, [aux_sym_shift_expression_repeat1]), (STATE 1570, 1,
       [aux_sym_logical_or_expression_repeat1]), (STATE 1574, 1,
       [aux_sym_logical_and_expression_repeat1]), (STATE 1582, 1,
       [aux_sym_additive_expression_repeat1]), (STATE 1662, 1, [aux_sym__if_null_expression]),
       (STATE 1663, 1, [aux_sym_bitwise_or_expression_repeat1]), (STATE 1665, 1,
       [aux_sym_bitwise_xor_expression_repeat1]), (STATE 1666, 1,
       [aux_sym_bitwise_and_expression_repeat1]), (STATE 2089, 1, [sym_is_operator]), (STATE
       2090, 1, [sym_as_operator]), (ACTIONS 400, 2, [anon_sym_LT, anon_sym_GT]), (ACTIONS 402,
       2, [anon_sym_LT_EQ, anon_sym_GT_EQ]), (ACTIONS 1271, 2, [anon_sym_LT_LT,
       anon_sym_GT_GT_GT]), (STATE 782, 2, [sym_comment, sym_documentation_comment]), (ACTIONS
       1416, 3, [anon_sym_BANG, anon_sym_DOT, anon_sym_QMARK_DOT]), (ACTIONS 1414, 4,
       [anon_sym_LBRACK, anon_sym_LPAREN, anon_sym_DOT_DOT, anon_sym_QMARK_DOT_DOT])])]"

lemma small_run_215: "small_run 782 29741 ts_small_parse_table_215 783 29874"
  by (simp add: small_simps ts_small_parse_table_215_def)

definition ts_small_parse_table_216 :: "small_group list" where
  "ts_small_parse_table_216 = [
     (29874, 46, [(ACTIONS 3, 1, [anon_sym_SLASH_SLASH]), (ACTIONS 5, 1,
       [anon_sym_SLASH_STAR]), (ACTIONS 7, 1, [anon_sym_SLASH_SLASH_SLASH]), (ACTIONS 9, 1,
       [sym__block_comment]), (ACTIONS 11, 1, [sym__documentation_block_comment]), (ACTIONS 17,
       1, [anon_sym_LPAREN]), (ACTIONS 33, 1, [sym_void_type]), (ACTIONS 35, 1, [anon_sym_var]),
       (ACTIONS 45, 1, [anon_sym_Function]), (ACTIONS 67, 1, [anon_sym_late]), (ACTIONS 143, 1,
       [anon_sym_AT]), (ACTIONS 145, 1, [anon_sym_final]), (ACTIONS 153, 1,
       [anon_sym_covariant]), (ACTIONS 159, 1, [anon_sym_this]), (ACTIONS 161, 1,
       [anon_sym_super]), (ACTIONS 446, 1, [anon_sym_required]), (ACTIONS 2262, 1,
       [sym_identifier]), (ACTIONS 2268, 1, [sym_const_builtin]), (STATE 825, 1,
       [sym__metadata]), (STATE 910, 1, [sym__required]), (STATE 1308, 1,
       [aux_sym__metadata_repeat1]), (STATE 1361, 1, [sym_annotation]), (STATE 1463, 1,
       [sym__function_builtin_identifier]), (STATE 1530, 1, [sym__type_name]), (STATE 1605, 1,
       [aux_sym__function_type_tails]), (STATE 1704, 1, [sym__function_type_tail]), (STATE 1794,
       1, [sym__covariant]), (STATE 1796, 1, [sym__type_not_function]), (STATE 1805, 1,
       [sym_record_type]), (STATE 1848, 1, [sym_function_type]), (STATE 1896, 1,
       [sym__type_not_void_not_function]), (STATE 1915, 1, [sym__late_builtin]), (STATE 1976, 1,
       [sym_inferred_type]), (STATE 1984, 1, [sym_final_builtin]), (STATE 2464, 1,
       [sym__simple_formal_parameter]), (STATE 2466, 1, [sym__normal_formal_parameter]), (STATE
       2468, 1, [sym__declared_identifier]), (STATE 2557, 1, [sym__final_const_var_or_type]),
       (STATE 2654, 1, [sym_formal_parameter]), (STATE 2755, 1, [sym__var_or_type]), (STATE 2756,
       1, [sym__type]), (STATE 2997, 1, [sym__default_named_parameter]), (STATE 3283, 1,
       [sym_this]), (STATE 3288, 1, [sym_super]), (STATE 783, 2, [sym_comment,
       sym_documentation_comment]), (STATE 2465, 3, [sym__function_formal_parameter,
       sym_super_formal_parameter, sym_constructor_param])])]"

lemma small_run_216: "small_run 783 29874 ts_small_parse_table_216 784 30016"
  by (simp add: small_simps ts_small_parse_table_216_def)

definition ts_small_parse_table_217 :: "small_group list" where
  "ts_small_parse_table_217 = [
     (30016, 12, [(ACTIONS 3, 1, [anon_sym_SLASH_SLASH]), (ACTIONS 5, 1,
       [anon_sym_SLASH_STAR]), (ACTIONS 7, 1, [anon_sym_SLASH_SLASH_SLASH]), (ACTIONS 9, 1,
       [sym__block_comment]), (ACTIONS 11, 1, [sym__documentation_block_comment]), (ACTIONS 2465,
       1, [anon_sym_GT_GT]), (STATE 343, 1, [sym_shift_operator]), (STATE 1397, 1,
       [sym__shift_operator]), (ACTIONS 2462, 2, [anon_sym_LT_LT, anon_sym_GT_GT_GT]), (STATE
       784, 3, [sym_comment, sym_documentation_comment, aux_sym_shift_expression_repeat1]),
       (ACTIONS 1359, 9, [anon_sym_QMARK, anon_sym_LT, anon_sym_GT, anon_sym_PIPE, anon_sym_AMP,
       anon_sym_SLASH, anon_sym_BANG, anon_sym_DOT, anon_sym_QMARK_DOT]), (ACTIONS 1357, 27,
       [anon_sym_RBRACE, anon_sym_LBRACK, anon_sym_COMMA, anon_sym_RBRACK, anon_sym_COLON,
       anon_sym_LPAREN, anon_sym_RPAREN, anon_sym_QMARK_QMARK, sym_equality_operator,
       anon_sym_LT_EQ, anon_sym_GT_EQ, anon_sym_CARET, sym__additive_operator, anon_sym_STAR,
       anon_sym_PERCENT, anon_sym_TILDE_SLASH, anon_sym_is, anon_sym_as, anon_sym_DOT_DOT,
       anon_sym_QMARK_DOT_DOT, anon_sym_SEMI, anon_sym_EQ_GT, anon_sym_when, anon_sym_case,
       anon_sym_else, anon_sym_AMP_AMP, anon_sym_PIPE_PIPE])])]"

lemma small_run_217: "small_run 784 30016 ts_small_parse_table_217 785 30090"
  by (simp add: small_simps ts_small_parse_table_217_def)

definition ts_small_parse_table_218 :: "small_group list" where
  "ts_small_parse_table_218 = [
     (30090, 43, [(ACTIONS 3, 1, [anon_sym_SLASH_SLASH]), (ACTIONS 5, 1,
       [anon_sym_SLASH_STAR]), (ACTIONS 7, 1, [anon_sym_SLASH_SLASH_SLASH]), (ACTIONS 9, 1,
       [sym__block_comment]), (ACTIONS 11, 1, [sym__documentation_block_comment]), (ACTIONS 1273,
       1, [anon_sym_GT_GT]), (ACTIONS 1275, 1, [sym__additive_operator]), (ACTIONS 1279, 1,
       [anon_sym_is]), (ACTIONS 1281, 1, [anon_sym_as]), (ACTIONS 1286, 1, [anon_sym_AMP_AMP]),
       (ACTIONS 1288, 1, [anon_sym_PIPE_PIPE]), (ACTIONS 2064, 1, [anon_sym_QMARK_QMARK]),
       (ACTIONS 2066, 1, [anon_sym_QMARK]), (ACTIONS 2068, 1, [sym_equality_operator]), (ACTIONS
       2070, 1, [anon_sym_PIPE]), (ACTIONS 2072, 1, [anon_sym_CARET]), (ACTIONS 2074, 1,
       [anon_sym_AMP]), (STATE 320, 1, [sym_relational_operator]), (STATE 327, 1,
       [sym_shift_operator]), (STATE 328, 1, [sym_additive_operator]), (STATE 330, 1,
       [sym_logical_and_operator]), (STATE 332, 1, [sym_logical_or_operator]), (STATE 914, 1,
       [sym_cascade_section]), (STATE 1334, 1, [aux_sym_shift_expression_repeat1]), (STATE 1386,
       1, [aux_sym_additive_expression_repeat1]), (STATE 1392, 1,
       [aux_sym_logical_and_expression_repeat1]), (STATE 1393, 1,
       [aux_sym_logical_or_expression_repeat1]), (STATE 1397, 1, [sym__shift_operator]), (STATE
       1398, 1, [aux_sym__if_null_expression]), (STATE 1405, 1,
       [aux_sym_bitwise_or_expression_repeat1]), (STATE 1408, 1,
       [aux_sym_bitwise_xor_expression_repeat1]), (STATE 1409, 1,
       [aux_sym_bitwise_and_expression_repeat1]), (STATE 1453, 1, [sym_type_cast]), (STATE 1469,
       1, [sym_type_test]), (STATE 2096, 1, [sym_as_operator]), (STATE 2097, 1,
       [sym_is_operator]), (STATE 2496, 1, [aux_sym__expression_repeat1]), (ACTIONS 400, 2,
       [anon_sym_LT, anon_sym_GT]), (ACTIONS 402, 2, [anon_sym_LT_EQ, anon_sym_GT_EQ]), (ACTIONS
       1271, 2, [anon_sym_LT_LT, anon_sym_GT_GT_GT]), (ACTIONS 2076, 2, [anon_sym_DOT_DOT,
       anon_sym_QMARK_DOT_DOT]), (ACTIONS 2231, 2, [anon_sym_COMMA, anon_sym_SEMI]), (STATE 785,
       2, [sym_comment, sym_documentation_comment])])]"

lemma small_run_218: "small_run 785 30090 ts_small_parse_table_218 786 30226"
  by (simp add: small_simps ts_small_parse_table_218_def)

definition ts_small_parse_table_219 :: "small_group list" where
  "ts_small_parse_table_219 = [
     (30226, 22, [(ACTIONS 3, 1, [anon_sym_SLASH_SLASH]), (ACTIONS 5, 1,
       [anon_sym_SLASH_STAR]), (ACTIONS 7, 1, [anon_sym_SLASH_SLASH_SLASH]), (ACTIONS 9, 1,
       [sym__block_comment]), (ACTIONS 11, 1, [sym__documentation_block_comment]), (ACTIONS 33,
       1, [sym_void_type]), (ACTIONS 45, 1, [anon_sym_Function]), (ACTIONS 2151, 1,
       [anon_sym_LPAREN]), (ACTIONS 2156, 1, [anon_sym_GT]), (ACTIONS 2468, 1, [sym_identifier]),
       (STATE 1463, 1, [sym__function_builtin_identifier]), (STATE 1530, 1, [sym__type_name]),
       (STATE 1605, 1, [aux_sym__function_type_tails]), (STATE 1704, 1,
       [sym__function_type_tail]), (STATE 1796, 1, [sym__type_not_function]), (STATE 1805, 1,
       [sym_record_type]), (STATE 1848, 1, [sym_function_type]), (STATE 1896, 1,
       [sym__type_not_void_not_function]), (STATE 2723, 1, [sym__type]), (STATE 786, 2,
       [sym_comment, sym_documentation_comment]), (ACTIONS 2147, 12, [anon_sym_POUND,
       sym_hex_integer_literal, anon_sym_DQUOTE_DQUOTE_DQUOTE, anon_sym_SQUOTE_SQUOTE_SQUOTE,
       anon_sym_r_DQUOTE_DQUOTE_DQUOTE, anon_sym_r_SQUOTE_SQUOTE_SQUOTE, anon_sym_LBRACE,
       anon_sym_LBRACK, anon_sym_LT, sym_increment_operator, anon_sym_BANG, anon_sym_TILDE]),
       (ACTIONS 2149, 16, [sym_decimal_integer_literal, sym_decimal_floating_point_literal,
       anon_sym_true, anon_sym_false, anon_sym_DQUOTE, anon_sym_SQUOTE, anon_sym_r_DQUOTE,
       anon_sym_r_SQUOTE, anon_sym_null, sym_minus_operator, anon_sym_await, anon_sym_switch,
       anon_sym_new, sym_const_builtin, anon_sym_this, anon_sym_super])]),
     (30320, 13, [(ACTIONS 3, 1, [anon_sym_SLASH_SLASH]), (ACTIONS 5, 1,
       [anon_sym_SLASH_STAR]), (ACTIONS 7, 1, [anon_sym_SLASH_SLASH_SLASH]), (ACTIONS 9, 1,
       [sym__block_comment]), (ACTIONS 11, 1, [sym__documentation_block_comment]), (ACTIONS 2477,
       1, [anon_sym_SLASH]), (STATE 427, 1, [sym_multiplicative_operator]), (STATE 791, 1,
       [aux_sym_multiplicative_expression_repeat1]), (STATE 1416, 1,
       [sym__multiplicative_operator]), (STATE 787, 2, [sym_comment, sym_documentation_comment]),
       (ACTIONS 2475, 3, [anon_sym_STAR, anon_sym_PERCENT, anon_sym_TILDE_SLASH]), (ACTIONS 2473,
       9, [anon_sym_QMARK, anon_sym_LT, anon_sym_GT, anon_sym_PIPE, anon_sym_AMP, anon_sym_GT_GT,
       anon_sym_BANG, anon_sym_DOT, anon_sym_QMARK_DOT]), (ACTIONS 2471, 26, [anon_sym_RBRACE,
       anon_sym_LBRACK, anon_sym_COMMA, anon_sym_RBRACK, anon_sym_COLON, anon_sym_LPAREN,
       anon_sym_RPAREN, anon_sym_QMARK_QMARK, sym_equality_operator, anon_sym_LT_EQ,
       anon_sym_GT_EQ, anon_sym_CARET, anon_sym_LT_LT, anon_sym_GT_GT_GT, sym__additive_operator,
       anon_sym_is, anon_sym_as, anon_sym_DOT_DOT, anon_sym_QMARK_DOT_DOT, anon_sym_SEMI,
       anon_sym_EQ_GT, anon_sym_when, anon_sym_case, anon_sym_else, anon_sym_AMP_AMP,
       anon_sym_PIPE_PIPE])])]"

lemma small_run_219: "small_run 786 30226 ts_small_parse_table_219 788 30396"
  by (simp add: small_simps ts_small_parse_table_219_def)

definition ts_small_parse_table_220 :: "small_group list" where
  "ts_small_parse_table_220 = [
     (30396, 46, [(ACTIONS 3, 1, [anon_sym_SLASH_SLASH]), (ACTIONS 5, 1,
       [anon_sym_SLASH_STAR]), (ACTIONS 7, 1, [anon_sym_SLASH_SLASH_SLASH]), (ACTIONS 9, 1,
       [sym__block_comment]), (ACTIONS 11, 1, [sym__documentation_block_comment]), (ACTIONS 17,
       1, [anon_sym_LPAREN]), (ACTIONS 33, 1, [sym_void_type]), (ACTIONS 35, 1, [anon_sym_var]),
       (ACTIONS 45, 1, [anon_sym_Function]), (ACTIONS 67, 1, [anon_sym_late]), (ACTIONS 143, 1,
       [anon_sym_AT]), (ACTIONS 145, 1, [anon_sym_final]), (ACTIONS 153, 1,
       [anon_sym_covariant]), (ACTIONS 159, 1, [anon_sym_this]), (ACTIONS 161, 1,
       [anon_sym_super]), (ACTIONS 446, 1, [anon_sym_required]), (ACTIONS 2262, 1,
       [sym_identifier]), (ACTIONS 2268, 1, [sym_const_builtin]), (STATE 919, 1,
       [sym__required]), (STATE 1077, 1, [sym__metadata]), (STATE 1308, 1,
       [aux_sym__metadata_repeat1]), (STATE 1361, 1, [sym_annotation]), (STATE 1463, 1,
       [sym__function_builtin_identifier]), (STATE 1530, 1, [sym__type_name]), (STATE 1605, 1,
       [aux_sym__function_type_tails]), (STATE 1704, 1, [sym__function_type_tail]), (STATE 1796,
       1, [sym__type_not_function]), (STATE 1798, 1, [sym__covariant]), (STATE 1805, 1,
       [sym_record_type]), (STATE 1848, 1, [sym_function_type]), (STATE 1896, 1,
       [sym__type_not_void_not_function]), (STATE 1915, 1, [sym__late_builtin]), (STATE 1976, 1,
       [sym_inferred_type]), (STATE 1984, 1, [sym_final_builtin]), (STATE 2466, 1,
       [sym__normal_formal_parameter]), (STATE 2468, 1, [sym__declared_identifier]), (STATE 2540,
       1, [sym__final_const_var_or_type]), (STATE 2625, 1, [sym__simple_formal_parameter]),
       (STATE 2628, 1, [sym_formal_parameter]), (STATE 2755, 1, [sym__var_or_type]), (STATE 2868,
       1, [sym__type]), (STATE 3069, 1, [sym_typed_identifier]), (STATE 3283, 1, [sym_this]),
       (STATE 3288, 1, [sym_super]), (STATE 788, 2, [sym_comment, sym_documentation_comment]),
       (STATE 2627, 3, [sym__function_formal_parameter, sym_super_formal_parameter,
       sym_constructor_param])])]"

lemma small_run_220: "small_run 788 30396 ts_small_parse_table_220 789 30538"
  by (simp add: small_simps ts_small_parse_table_220_def)

definition ts_small_parse_table_221 :: "small_group list" where
  "ts_small_parse_table_221 = [
     (30538, 12, [(ACTIONS 3, 1, [anon_sym_SLASH_SLASH]), (ACTIONS 5, 1,
       [anon_sym_SLASH_STAR]), (ACTIONS 7, 1, [anon_sym_SLASH_SLASH_SLASH]), (ACTIONS 9, 1,
       [sym__block_comment]), (ACTIONS 11, 1, [sym__documentation_block_comment]), (ACTIONS 2481,
       1, [anon_sym_LPAREN]), (ACTIONS 2484, 1, [anon_sym_QMARK]), (STATE 821, 1,
       [sym_parameter_type_list]), (STATE 894, 1, [sym_nullable_type]), (STATE 789, 2,
       [sym_comment, sym_documentation_comment]), (ACTIONS 2487, 9, [anon_sym_LT, anon_sym_GT,
       anon_sym_PIPE, anon_sym_AMP, anon_sym_GT_GT, anon_sym_SLASH, anon_sym_BANG, anon_sym_DOT,
       anon_sym_QMARK_DOT]), (ACTIONS 2479, 29, [anon_sym_RBRACE, anon_sym_LBRACK,
       anon_sym_COMMA, anon_sym_RBRACK, anon_sym_COLON, anon_sym_RPAREN, anon_sym_QMARK_QMARK,
       sym_equality_operator, anon_sym_LT_EQ, anon_sym_GT_EQ, anon_sym_CARET, anon_sym_LT_LT,
       anon_sym_GT_GT_GT, sym__additive_operator, anon_sym_STAR, anon_sym_PERCENT,
       anon_sym_TILDE_SLASH, anon_sym_is, anon_sym_as, anon_sym_DOT_DOT, anon_sym_QMARK_DOT_DOT,
       anon_sym_SEMI, anon_sym_EQ_GT, anon_sym_when, anon_sym_case, anon_sym_else,
       anon_sym_Function, anon_sym_AMP_AMP, anon_sym_PIPE_PIPE])])]"

lemma small_run_221: "small_run 789 30538 ts_small_parse_table_221 790 30612"
  by (simp add: small_simps ts_small_parse_table_221_def)

definition ts_small_parse_table_part_2 :: "small_group list" where
  "ts_small_parse_table_part_2 =
     ts_small_parse_table_105 @ ts_small_parse_table_106 @ ts_small_parse_table_107 @
     ts_small_parse_table_108 @ ts_small_parse_table_109 @ ts_small_parse_table_110 @
     ts_small_parse_table_111 @ ts_small_parse_table_112 @ ts_small_parse_table_113 @
     ts_small_parse_table_114 @ ts_small_parse_table_115 @ ts_small_parse_table_116 @
     ts_small_parse_table_117 @ ts_small_parse_table_118 @ ts_small_parse_table_119 @
     ts_small_parse_table_120 @ ts_small_parse_table_121 @ ts_small_parse_table_122 @
     ts_small_parse_table_123 @ ts_small_parse_table_124 @ ts_small_parse_table_125 @
     ts_small_parse_table_126 @ ts_small_parse_table_127 @ ts_small_parse_table_128 @
     ts_small_parse_table_129 @ ts_small_parse_table_130 @ ts_small_parse_table_131 @
     ts_small_parse_table_132 @ ts_small_parse_table_133 @ ts_small_parse_table_134 @
     ts_small_parse_table_135 @ ts_small_parse_table_136 @ ts_small_parse_table_137 @
     ts_small_parse_table_138 @ ts_small_parse_table_139 @ ts_small_parse_table_140 @
     ts_small_parse_table_141 @ ts_small_parse_table_142 @ ts_small_parse_table_143 @
     ts_small_parse_table_144 @ ts_small_parse_table_145 @ ts_small_parse_table_146 @
     ts_small_parse_table_147 @ ts_small_parse_table_148 @ ts_small_parse_table_149 @
     ts_small_parse_table_150 @ ts_small_parse_table_151 @ ts_small_parse_table_152 @
     ts_small_parse_table_153 @ ts_small_parse_table_154 @ ts_small_parse_table_155 @
     ts_small_parse_table_156 @ ts_small_parse_table_157 @ ts_small_parse_table_158 @
     ts_small_parse_table_159 @ ts_small_parse_table_160 @ ts_small_parse_table_161 @
     ts_small_parse_table_162 @ ts_small_parse_table_163 @ ts_small_parse_table_164 @
     ts_small_parse_table_165 @ ts_small_parse_table_166 @ ts_small_parse_table_167 @
     ts_small_parse_table_168 @ ts_small_parse_table_169 @ ts_small_parse_table_170 @
     ts_small_parse_table_171 @ ts_small_parse_table_172 @ ts_small_parse_table_173 @
     ts_small_parse_table_174 @ ts_small_parse_table_175 @ ts_small_parse_table_176 @
     ts_small_parse_table_177 @ ts_small_parse_table_178 @ ts_small_parse_table_179 @
     ts_small_parse_table_180 @ ts_small_parse_table_181 @ ts_small_parse_table_182 @
     ts_small_parse_table_183 @ ts_small_parse_table_184 @ ts_small_parse_table_185 @
     ts_small_parse_table_186 @ ts_small_parse_table_187 @ ts_small_parse_table_188 @
     ts_small_parse_table_189 @ ts_small_parse_table_190 @ ts_small_parse_table_191 @
     ts_small_parse_table_192 @ ts_small_parse_table_193 @ ts_small_parse_table_194 @
     ts_small_parse_table_195 @ ts_small_parse_table_196 @ ts_small_parse_table_197 @
     ts_small_parse_table_198 @ ts_small_parse_table_199 @ ts_small_parse_table_200 @
     ts_small_parse_table_201 @ ts_small_parse_table_202 @ ts_small_parse_table_203 @
     ts_small_parse_table_204 @ ts_small_parse_table_205 @ ts_small_parse_table_206 @
     ts_small_parse_table_207 @ ts_small_parse_table_208 @ ts_small_parse_table_209 @
     ts_small_parse_table_210 @ ts_small_parse_table_211 @ ts_small_parse_table_212 @
     ts_small_parse_table_213 @ ts_small_parse_table_214 @ ts_small_parse_table_215 @
     ts_small_parse_table_216 @ ts_small_parse_table_217 @ ts_small_parse_table_218 @
     ts_small_parse_table_219 @ ts_small_parse_table_220 @ ts_small_parse_table_221"

lemma small_part_2: "small_run 647 15281 ts_small_parse_table_part_2 790 30612"
  unfolding ts_small_parse_table_part_2_def
  by (rule small_run_append [OF small_run_105], rule small_run_append [OF small_run_106],
    rule small_run_append [OF small_run_107], rule small_run_append [OF small_run_108],
    rule small_run_append [OF small_run_109], rule small_run_append [OF small_run_110],
    rule small_run_append [OF small_run_111], rule small_run_append [OF small_run_112],
    rule small_run_append [OF small_run_113], rule small_run_append [OF small_run_114],
    rule small_run_append [OF small_run_115], rule small_run_append [OF small_run_116],
    rule small_run_append [OF small_run_117], rule small_run_append [OF small_run_118],
    rule small_run_append [OF small_run_119], rule small_run_append [OF small_run_120],
    rule small_run_append [OF small_run_121], rule small_run_append [OF small_run_122],
    rule small_run_append [OF small_run_123], rule small_run_append [OF small_run_124],
    rule small_run_append [OF small_run_125], rule small_run_append [OF small_run_126],
    rule small_run_append [OF small_run_127], rule small_run_append [OF small_run_128],
    rule small_run_append [OF small_run_129], rule small_run_append [OF small_run_130],
    rule small_run_append [OF small_run_131], rule small_run_append [OF small_run_132],
    rule small_run_append [OF small_run_133], rule small_run_append [OF small_run_134],
    rule small_run_append [OF small_run_135], rule small_run_append [OF small_run_136],
    rule small_run_append [OF small_run_137], rule small_run_append [OF small_run_138],
    rule small_run_append [OF small_run_139], rule small_run_append [OF small_run_140],
    rule small_run_append [OF small_run_141], rule small_run_append [OF small_run_142],
    rule small_run_append [OF small_run_143], rule small_run_append [OF small_run_144],
    rule small_run_append [OF small_run_145], rule small_run_append [OF small_run_146],
    rule small_run_append [OF small_run_147], rule small_run_append [OF small_run_148],
    rule small_run_append [OF small_run_149], rule small_run_append [OF small_run_150],
    rule small_run_append [OF small_run_151], rule small_run_append [OF small_run_152],
    rule small_run_append [OF small_run_153], rule small_run_append [OF small_run_154],
    rule small_run_append [OF small_run_155], rule small_run_append [OF small_run_156],
    rule small_run_append [OF small_run_157], rule small_run_append [OF small_run_158],
    rule small_run_append [OF small_run_159], rule small_run_append [OF small_run_160],
    rule small_run_append [OF small_run_161], rule small_run_append [OF small_run_162],
    rule small_run_append [OF small_run_163], rule small_run_append [OF small_run_164],
    rule small_run_append [OF small_run_165], rule small_run_append [OF small_run_166],
    rule small_run_append [OF small_run_167], rule small_run_append [OF small_run_168],
    rule small_run_append [OF small_run_169], rule small_run_append [OF small_run_170],
    rule small_run_append [OF small_run_171], rule small_run_append [OF small_run_172],
    rule small_run_append [OF small_run_173], rule small_run_append [OF small_run_174],
    rule small_run_append [OF small_run_175], rule small_run_append [OF small_run_176],
    rule small_run_append [OF small_run_177], rule small_run_append [OF small_run_178],
    rule small_run_append [OF small_run_179], rule small_run_append [OF small_run_180],
    rule small_run_append [OF small_run_181], rule small_run_append [OF small_run_182],
    rule small_run_append [OF small_run_183], rule small_run_append [OF small_run_184],
    rule small_run_append [OF small_run_185], rule small_run_append [OF small_run_186],
    rule small_run_append [OF small_run_187], rule small_run_append [OF small_run_188],
    rule small_run_append [OF small_run_189], rule small_run_append [OF small_run_190],
    rule small_run_append [OF small_run_191], rule small_run_append [OF small_run_192],
    rule small_run_append [OF small_run_193], rule small_run_append [OF small_run_194],
    rule small_run_append [OF small_run_195], rule small_run_append [OF small_run_196],
    rule small_run_append [OF small_run_197], rule small_run_append [OF small_run_198],
    rule small_run_append [OF small_run_199], rule small_run_append [OF small_run_200],
    rule small_run_append [OF small_run_201], rule small_run_append [OF small_run_202],
    rule small_run_append [OF small_run_203], rule small_run_append [OF small_run_204],
    rule small_run_append [OF small_run_205], rule small_run_append [OF small_run_206],
    rule small_run_append [OF small_run_207], rule small_run_append [OF small_run_208],
    rule small_run_append [OF small_run_209], rule small_run_append [OF small_run_210],
    rule small_run_append [OF small_run_211], rule small_run_append [OF small_run_212],
    rule small_run_append [OF small_run_213], rule small_run_append [OF small_run_214],
    rule small_run_append [OF small_run_215], rule small_run_append [OF small_run_216],
    rule small_run_append [OF small_run_217], rule small_run_append [OF small_run_218],
    rule small_run_append [OF small_run_219], rule small_run_append [OF small_run_220],
    rule small_run_221)

end
