(* ===== verification/Dart_Small_3.thy ===== *)
theory Dart_Small_3
  imports Dart_Items
begin

text \<open>
  The groups of \<^verbatim>\<open>ts_small_parse_table\<close> for the states 790 to 1011, in blocks of at most 150 lines of
  the source, each with the check of its layout and of its entries.
\<close>

definition ts_small_parse_table_222 :: "small_group list" where
  "ts_small_parse_table_222 = [
     (30612, 43, [(ACTIONS 3, 1, [anon_sym_SLASH_SLASH]), (ACTIONS 5, 1,
       [anon_sym_SLASH_STAR]), (ACTIONS 7, 1, [anon_sym_SLASH_SLASH_SLASH]), (ACTIONS 9, 1,
       [sym__block_comment]), (ACTIONS 11, 1, [sym__documentation_block_comment]), (ACTIONS 1273,
       1, [anon_sym_GT_GT]), (ACTIONS 1275, 1, [sym__additive_operator]), (ACTIONS 1279, 1,
       [anon_sym_is]), (ACTIONS 1281, 1, [anon_sym_as]), (ACTIONS 1286, 1, [anon_sym_AMP_AMP]),
       (ACTIONS 1288, 1, [anon_sym_PIPE_PIPE]), (ACTIONS 2064, 1, [anon_sym_QMARK_QMARK]),
       (ACTIONS 2066, 1, [anon_sym_QMARK]), (ACTIONS 2068, 1, [sym_equality_operator]), (ACTIONS
       2070, 1, [anon_sym_PIPE]), (ACTIONS 2072, 1, [anon_sym_CARET]), (ACTIONS 2074, 1,
       [anon_sym_AMP]), (STATE 320, 1, [sym_relational_operator]), (STATE 327, 1,
       [sym_shift_operator]), (STATE 328, 1, [sym_additive_operator]), (STATE 330, 1,
       [sym_logical_and_operator]), (STATE 332, 1, [sym_logical_or_operator]), (STATE 914, 1,
       [sym_cascade_section]), (STATE 1334, 1, [aux_sym_shift_expression_repeat1]), (STATE 1386,
       1, [aux_sym_additive_expression_repeat1]), (STATE 1392, 1,
       [aux_sym_logical_and_expression_repeat1]), (STATE 1393, 1,
       [aux_sym_logical_or_expression_repeat1]), (STATE 1397, 1, [sym__shift_operator]), (STATE
       1398, 1, [aux_sym__if_null_expression]), (STATE 1405, 1,
       [aux_sym_bitwise_or_expression_repeat1]), (STATE 1408, 1,
       [aux_sym_bitwise_xor_expression_repeat1]), (STATE 1409, 1,
       [aux_sym_bitwise_and_expression_repeat1]), (STATE 1453, 1, [sym_type_cast]), (STATE 1469,
       1, [sym_type_test]), (STATE 2096, 1, [sym_as_operator]), (STATE 2097, 1,
       [sym_is_operator]), (STATE 2502, 1, [aux_sym__expression_repeat1]), (ACTIONS 400, 2,
       [anon_sym_LT, anon_sym_GT]), (ACTIONS 402, 2, [anon_sym_LT_EQ, anon_sym_GT_EQ]), (ACTIONS
       1271, 2, [anon_sym_LT_LT, anon_sym_GT_GT_GT]), (ACTIONS 2076, 2, [anon_sym_DOT_DOT,
       anon_sym_QMARK_DOT_DOT]), (ACTIONS 2196, 2, [anon_sym_COMMA, anon_sym_SEMI]), (STATE 790,
       2, [sym_comment, sym_documentation_comment])])]"

lemma small_run_222: "small_run 790 30612 ts_small_parse_table_222 791 30748"
  by (simp add: small_simps ts_small_parse_table_222_def)

definition ts_small_parse_table_223 :: "small_group list" where
  "ts_small_parse_table_223 = [
     (30748, 11, [(ACTIONS 3, 1, [anon_sym_SLASH_SLASH]), (ACTIONS 5, 1,
       [anon_sym_SLASH_STAR]), (ACTIONS 7, 1, [anon_sym_SLASH_SLASH_SLASH]), (ACTIONS 9, 1,
       [sym__block_comment]), (ACTIONS 11, 1, [sym__documentation_block_comment]), (STATE 427, 1,
       [sym_multiplicative_operator]), (STATE 793, 1,
       [aux_sym_multiplicative_expression_repeat1]), (STATE 1416, 1,
       [sym__multiplicative_operator]), (STATE 791, 2, [sym_comment, sym_documentation_comment]),
       (ACTIONS 2491, 10, [anon_sym_QMARK, anon_sym_LT, anon_sym_GT, anon_sym_PIPE, anon_sym_AMP,
       anon_sym_GT_GT, anon_sym_SLASH, anon_sym_BANG, anon_sym_DOT, anon_sym_QMARK_DOT]),
       (ACTIONS 2489, 29, [anon_sym_RBRACE, anon_sym_LBRACK, anon_sym_COMMA, anon_sym_RBRACK,
       anon_sym_COLON, anon_sym_LPAREN, anon_sym_RPAREN, anon_sym_QMARK_QMARK,
       sym_equality_operator, anon_sym_LT_EQ, anon_sym_GT_EQ, anon_sym_CARET, anon_sym_LT_LT,
       anon_sym_GT_GT_GT, sym__additive_operator, anon_sym_STAR, anon_sym_PERCENT,
       anon_sym_TILDE_SLASH, anon_sym_is, anon_sym_as, anon_sym_DOT_DOT, anon_sym_QMARK_DOT_DOT,
       anon_sym_SEMI, anon_sym_EQ_GT, anon_sym_when, anon_sym_case, anon_sym_else,
       anon_sym_AMP_AMP, anon_sym_PIPE_PIPE])]),
     (30820, 11, [(ACTIONS 3, 1, [anon_sym_SLASH_SLASH]), (ACTIONS 5, 1,
       [anon_sym_SLASH_STAR]), (ACTIONS 7, 1, [anon_sym_SLASH_SLASH_SLASH]), (ACTIONS 9, 1,
       [sym__block_comment]), (ACTIONS 11, 1, [sym__documentation_block_comment]), (STATE 343, 1,
       [sym_shift_operator]), (STATE 784, 1, [aux_sym_shift_expression_repeat1]), (STATE 1397, 1,
       [sym__shift_operator]), (STATE 792, 2, [sym_comment, sym_documentation_comment]), (ACTIONS
       2495, 10, [anon_sym_QMARK, anon_sym_LT, anon_sym_GT, anon_sym_PIPE, anon_sym_AMP,
       anon_sym_GT_GT, anon_sym_SLASH, anon_sym_BANG, anon_sym_DOT, anon_sym_QMARK_DOT]),
       (ACTIONS 2493, 29, [anon_sym_RBRACE, anon_sym_LBRACK, anon_sym_COMMA, anon_sym_RBRACK,
       anon_sym_COLON, anon_sym_LPAREN, anon_sym_RPAREN, anon_sym_QMARK_QMARK,
       sym_equality_operator, anon_sym_LT_EQ, anon_sym_GT_EQ, anon_sym_CARET, anon_sym_LT_LT,
       anon_sym_GT_GT_GT, sym__additive_operator, anon_sym_STAR, anon_sym_PERCENT,
       anon_sym_TILDE_SLASH, anon_sym_is, anon_sym_as, anon_sym_DOT_DOT, anon_sym_QMARK_DOT_DOT,
       anon_sym_SEMI, anon_sym_EQ_GT, anon_sym_when, anon_sym_case, anon_sym_else,
       anon_sym_AMP_AMP, anon_sym_PIPE_PIPE])])]"

lemma small_run_223: "small_run 791 30748 ts_small_parse_table_223 793 30892"
  by (simp add: small_simps ts_small_parse_table_223_def)

definition ts_small_parse_table_224 :: "small_group list" where
  "ts_small_parse_table_224 = [
     (30892, 12, [(ACTIONS 3, 1, [anon_sym_SLASH_SLASH]), (ACTIONS 5, 1,
       [anon_sym_SLASH_STAR]), (ACTIONS 7, 1, [anon_sym_SLASH_SLASH_SLASH]), (ACTIONS 9, 1,
       [sym__block_comment]), (ACTIONS 11, 1, [sym__documentation_block_comment]), (ACTIONS 2504,
       1, [anon_sym_SLASH]), (STATE 427, 1, [sym_multiplicative_operator]), (STATE 1416, 1,
       [sym__multiplicative_operator]), (ACTIONS 2501, 3, [anon_sym_STAR, anon_sym_PERCENT,
       anon_sym_TILDE_SLASH]), (STATE 793, 3, [sym_comment, sym_documentation_comment,
       aux_sym_multiplicative_expression_repeat1]), (ACTIONS 2499, 9, [anon_sym_QMARK,
       anon_sym_LT, anon_sym_GT, anon_sym_PIPE, anon_sym_AMP, anon_sym_GT_GT, anon_sym_BANG,
       anon_sym_DOT, anon_sym_QMARK_DOT]), (ACTIONS 2497, 26, [anon_sym_RBRACE, anon_sym_LBRACK,
       anon_sym_COMMA, anon_sym_RBRACK, anon_sym_COLON, anon_sym_LPAREN, anon_sym_RPAREN,
       anon_sym_QMARK_QMARK, sym_equality_operator, anon_sym_LT_EQ, anon_sym_GT_EQ,
       anon_sym_CARET, anon_sym_LT_LT, anon_sym_GT_GT_GT, sym__additive_operator, anon_sym_is,
       anon_sym_as, anon_sym_DOT_DOT, anon_sym_QMARK_DOT_DOT, anon_sym_SEMI, anon_sym_EQ_GT,
       anon_sym_when, anon_sym_case, anon_sym_else, anon_sym_AMP_AMP, anon_sym_PIPE_PIPE])]),
     (30966, 8, [(ACTIONS 3, 1, [anon_sym_SLASH_SLASH]), (ACTIONS 5, 1, [anon_sym_SLASH_STAR]),
       (ACTIONS 7, 1, [anon_sym_SLASH_SLASH_SLASH]), (ACTIONS 9, 1, [sym__block_comment]),
       (ACTIONS 11, 1, [sym__documentation_block_comment]), (STATE 794, 2, [sym_comment,
       sym_documentation_comment]), (ACTIONS 1985, 12, [anon_sym_DQUOTE, anon_sym_SQUOTE,
       anon_sym_r_DQUOTE, anon_sym_r_SQUOTE, anon_sym_QMARK, anon_sym_LT, anon_sym_GT,
       anon_sym_PIPE, anon_sym_AMP, anon_sym_GT_GT, anon_sym_SLASH, anon_sym_BANG]), (ACTIONS
       1987, 30, [anon_sym_DQUOTE_DQUOTE_DQUOTE, anon_sym_SQUOTE_SQUOTE_SQUOTE,
       anon_sym_r_DQUOTE_DQUOTE_DQUOTE, anon_sym_r_SQUOTE_SQUOTE_SQUOTE, anon_sym_RBRACE,
       anon_sym_LBRACK, anon_sym_COMMA, anon_sym_RBRACK, anon_sym_COLON, anon_sym_LPAREN,
       anon_sym_RPAREN, anon_sym_QMARK_QMARK, sym_equality_operator, anon_sym_LT_EQ,
       anon_sym_GT_EQ, anon_sym_CARET, anon_sym_LT_LT, anon_sym_GT_GT_GT, sym__additive_operator,
       anon_sym_STAR, anon_sym_PERCENT, anon_sym_TILDE_SLASH, anon_sym_is, anon_sym_as,
       anon_sym_DOT, anon_sym_QMARK_DOT, anon_sym_EQ_GT, anon_sym_when, anon_sym_AMP_AMP,
       anon_sym_PIPE_PIPE])])]"

lemma small_run_224: "small_run 793 30892 ts_small_parse_table_224 795 31032"
  by (simp add: small_simps ts_small_parse_table_224_def)

definition ts_small_parse_table_225 :: "small_group list" where
  "ts_small_parse_table_225 = [
     (31032, 12, [(ACTIONS 3, 1, [anon_sym_SLASH_SLASH]), (ACTIONS 5, 1,
       [anon_sym_SLASH_STAR]), (ACTIONS 7, 1, [anon_sym_SLASH_SLASH_SLASH]), (ACTIONS 9, 1,
       [sym__block_comment]), (ACTIONS 11, 1, [sym__documentation_block_comment]), (ACTIONS 2509,
       1, [anon_sym_LPAREN]), (ACTIONS 2512, 1, [anon_sym_QMARK]), (STATE 789, 1,
       [sym_nullable_type]), (STATE 818, 1, [sym_parameter_type_list]), (STATE 795, 2,
       [sym_comment, sym_documentation_comment]), (ACTIONS 2515, 9, [anon_sym_LT, anon_sym_GT,
       anon_sym_PIPE, anon_sym_AMP, anon_sym_GT_GT, anon_sym_SLASH, anon_sym_BANG, anon_sym_DOT,
       anon_sym_QMARK_DOT]), (ACTIONS 2507, 29, [anon_sym_RBRACE, anon_sym_LBRACK,
       anon_sym_COMMA, anon_sym_RBRACK, anon_sym_COLON, anon_sym_RPAREN, anon_sym_QMARK_QMARK,
       sym_equality_operator, anon_sym_LT_EQ, anon_sym_GT_EQ, anon_sym_CARET, anon_sym_LT_LT,
       anon_sym_GT_GT_GT, sym__additive_operator, anon_sym_STAR, anon_sym_PERCENT,
       anon_sym_TILDE_SLASH, anon_sym_is, anon_sym_as, anon_sym_DOT_DOT, anon_sym_QMARK_DOT_DOT,
       anon_sym_SEMI, anon_sym_EQ_GT, anon_sym_when, anon_sym_case, anon_sym_else,
       anon_sym_Function, anon_sym_AMP_AMP, anon_sym_PIPE_PIPE])]),
     (31106, 8, [(ACTIONS 3, 1, [anon_sym_SLASH_SLASH]), (ACTIONS 5, 1, [anon_sym_SLASH_STAR]),
       (ACTIONS 7, 1, [anon_sym_SLASH_SLASH_SLASH]), (ACTIONS 9, 1, [sym__block_comment]),
       (ACTIONS 11, 1, [sym__documentation_block_comment]), (STATE 796, 2, [sym_comment,
       sym_documentation_comment]), (ACTIONS 1953, 12, [anon_sym_DQUOTE, anon_sym_SQUOTE,
       anon_sym_r_DQUOTE, anon_sym_r_SQUOTE, anon_sym_QMARK, anon_sym_LT, anon_sym_GT,
       anon_sym_PIPE, anon_sym_AMP, anon_sym_GT_GT, anon_sym_SLASH, anon_sym_BANG]), (ACTIONS
       1955, 30, [anon_sym_DQUOTE_DQUOTE_DQUOTE, anon_sym_SQUOTE_SQUOTE_SQUOTE,
       anon_sym_r_DQUOTE_DQUOTE_DQUOTE, anon_sym_r_SQUOTE_SQUOTE_SQUOTE, anon_sym_RBRACE,
       anon_sym_LBRACK, anon_sym_COMMA, anon_sym_RBRACK, anon_sym_COLON, anon_sym_LPAREN,
       anon_sym_RPAREN, anon_sym_QMARK_QMARK, sym_equality_operator, anon_sym_LT_EQ,
       anon_sym_GT_EQ, anon_sym_CARET, anon_sym_LT_LT, anon_sym_GT_GT_GT, sym__additive_operator,
       anon_sym_STAR, anon_sym_PERCENT, anon_sym_TILDE_SLASH, anon_sym_is, anon_sym_as,
       anon_sym_DOT, anon_sym_QMARK_DOT, anon_sym_EQ_GT, anon_sym_when, anon_sym_AMP_AMP,
       anon_sym_PIPE_PIPE])])]"

lemma small_run_225: "small_run 795 31032 ts_small_parse_table_225 797 31172"
  by (simp add: small_simps ts_small_parse_table_225_def)

definition ts_small_parse_table_226 :: "small_group list" where
  "ts_small_parse_table_226 = [
     (31172, 12, [(ACTIONS 3, 1, [anon_sym_SLASH_SLASH]), (ACTIONS 5, 1,
       [anon_sym_SLASH_STAR]), (ACTIONS 7, 1, [anon_sym_SLASH_SLASH_SLASH]), (ACTIONS 9, 1,
       [sym__block_comment]), (ACTIONS 11, 1, [sym__documentation_block_comment]), (ACTIONS 2520,
       1, [anon_sym_LPAREN]), (ACTIONS 2524, 1, [anon_sym_QMARK]), (STATE 818, 1,
       [sym_parameter_type_list]), (STATE 897, 1, [sym_nullable_type]), (STATE 797, 2,
       [sym_comment, sym_documentation_comment]), (ACTIONS 2528, 9, [anon_sym_LT, anon_sym_GT,
       anon_sym_PIPE, anon_sym_AMP, anon_sym_GT_GT, anon_sym_SLASH, anon_sym_BANG, anon_sym_DOT,
       anon_sym_QMARK_DOT]), (ACTIONS 2517, 29, [anon_sym_RBRACE, anon_sym_LBRACK,
       anon_sym_COMMA, anon_sym_RBRACK, anon_sym_COLON, anon_sym_RPAREN, anon_sym_QMARK_QMARK,
       sym_equality_operator, anon_sym_LT_EQ, anon_sym_GT_EQ, anon_sym_CARET, anon_sym_LT_LT,
       anon_sym_GT_GT_GT, sym__additive_operator, anon_sym_STAR, anon_sym_PERCENT,
       anon_sym_TILDE_SLASH, anon_sym_is, anon_sym_as, anon_sym_DOT_DOT, anon_sym_QMARK_DOT_DOT,
       anon_sym_SEMI, anon_sym_EQ_GT, anon_sym_when, anon_sym_case, anon_sym_else,
       anon_sym_Function, anon_sym_AMP_AMP, anon_sym_PIPE_PIPE])]),
     (31246, 8, [(ACTIONS 3, 1, [anon_sym_SLASH_SLASH]), (ACTIONS 5, 1, [anon_sym_SLASH_STAR]),
       (ACTIONS 7, 1, [anon_sym_SLASH_SLASH_SLASH]), (ACTIONS 9, 1, [sym__block_comment]),
       (ACTIONS 11, 1, [sym__documentation_block_comment]), (STATE 798, 2, [sym_comment,
       sym_documentation_comment]), (ACTIONS 1965, 12, [anon_sym_DQUOTE, anon_sym_SQUOTE,
       anon_sym_r_DQUOTE, anon_sym_r_SQUOTE, anon_sym_QMARK, anon_sym_LT, anon_sym_GT,
       anon_sym_PIPE, anon_sym_AMP, anon_sym_GT_GT, anon_sym_SLASH, anon_sym_BANG]), (ACTIONS
       1967, 30, [anon_sym_DQUOTE_DQUOTE_DQUOTE, anon_sym_SQUOTE_SQUOTE_SQUOTE,
       anon_sym_r_DQUOTE_DQUOTE_DQUOTE, anon_sym_r_SQUOTE_SQUOTE_SQUOTE, anon_sym_RBRACE,
       anon_sym_LBRACK, anon_sym_COMMA, anon_sym_RBRACK, anon_sym_COLON, anon_sym_LPAREN,
       anon_sym_RPAREN, anon_sym_QMARK_QMARK, sym_equality_operator, anon_sym_LT_EQ,
       anon_sym_GT_EQ, anon_sym_CARET, anon_sym_LT_LT, anon_sym_GT_GT_GT, sym__additive_operator,
       anon_sym_STAR, anon_sym_PERCENT, anon_sym_TILDE_SLASH, anon_sym_is, anon_sym_as,
       anon_sym_DOT, anon_sym_QMARK_DOT, anon_sym_EQ_GT, anon_sym_when, anon_sym_AMP_AMP,
       anon_sym_PIPE_PIPE])])]"

lemma small_run_226: "small_run 797 31172 ts_small_parse_table_226 799 31312"
  by (simp add: small_simps ts_small_parse_table_226_def)

definition ts_small_parse_table_227 :: "small_group list" where
  "ts_small_parse_table_227 = [
     (31312, 8, [(ACTIONS 3, 1, [anon_sym_SLASH_SLASH]), (ACTIONS 5, 1, [anon_sym_SLASH_STAR]),
       (ACTIONS 7, 1, [anon_sym_SLASH_SLASH_SLASH]), (ACTIONS 9, 1, [sym__block_comment]),
       (ACTIONS 11, 1, [sym__documentation_block_comment]), (STATE 799, 2, [sym_comment,
       sym_documentation_comment]), (ACTIONS 1961, 12, [anon_sym_DQUOTE, anon_sym_SQUOTE,
       anon_sym_r_DQUOTE, anon_sym_r_SQUOTE, anon_sym_QMARK, anon_sym_LT, anon_sym_GT,
       anon_sym_PIPE, anon_sym_AMP, anon_sym_GT_GT, anon_sym_SLASH, anon_sym_BANG]), (ACTIONS
       1963, 30, [anon_sym_DQUOTE_DQUOTE_DQUOTE, anon_sym_SQUOTE_SQUOTE_SQUOTE,
       anon_sym_r_DQUOTE_DQUOTE_DQUOTE, anon_sym_r_SQUOTE_SQUOTE_SQUOTE, anon_sym_RBRACE,
       anon_sym_LBRACK, anon_sym_COMMA, anon_sym_RBRACK, anon_sym_COLON, anon_sym_LPAREN,
       anon_sym_RPAREN, anon_sym_QMARK_QMARK, sym_equality_operator, anon_sym_LT_EQ,
       anon_sym_GT_EQ, anon_sym_CARET, anon_sym_LT_LT, anon_sym_GT_GT_GT, sym__additive_operator,
       anon_sym_STAR, anon_sym_PERCENT, anon_sym_TILDE_SLASH, anon_sym_is, anon_sym_as,
       anon_sym_DOT, anon_sym_QMARK_DOT, anon_sym_EQ_GT, anon_sym_when, anon_sym_AMP_AMP,
       anon_sym_PIPE_PIPE])])]"

lemma small_run_227: "small_run 799 31312 ts_small_parse_table_227 800 31378"
  by (simp add: small_simps ts_small_parse_table_227_def)

definition ts_small_parse_table_228 :: "small_group list" where
  "ts_small_parse_table_228 = [
     (31378, 46, [(ACTIONS 3, 1, [anon_sym_SLASH_SLASH]), (ACTIONS 5, 1,
       [anon_sym_SLASH_STAR]), (ACTIONS 7, 1, [anon_sym_SLASH_SLASH_SLASH]), (ACTIONS 9, 1,
       [sym__block_comment]), (ACTIONS 11, 1, [sym__documentation_block_comment]), (ACTIONS 17,
       1, [anon_sym_LPAREN]), (ACTIONS 33, 1, [sym_void_type]), (ACTIONS 35, 1, [anon_sym_var]),
       (ACTIONS 45, 1, [anon_sym_Function]), (ACTIONS 67, 1, [anon_sym_late]), (ACTIONS 143, 1,
       [anon_sym_AT]), (ACTIONS 145, 1, [anon_sym_final]), (ACTIONS 153, 1,
       [anon_sym_covariant]), (ACTIONS 159, 1, [anon_sym_this]), (ACTIONS 161, 1,
       [anon_sym_super]), (ACTIONS 446, 1, [anon_sym_required]), (ACTIONS 2262, 1,
       [sym_identifier]), (ACTIONS 2268, 1, [sym_const_builtin]), (STATE 825, 1,
       [sym__metadata]), (STATE 910, 1, [sym__required]), (STATE 1308, 1,
       [aux_sym__metadata_repeat1]), (STATE 1361, 1, [sym_annotation]), (STATE 1463, 1,
       [sym__function_builtin_identifier]), (STATE 1530, 1, [sym__type_name]), (STATE 1605, 1,
       [aux_sym__function_type_tails]), (STATE 1704, 1, [sym__function_type_tail]), (STATE 1794,
       1, [sym__covariant]), (STATE 1796, 1, [sym__type_not_function]), (STATE 1805, 1,
       [sym_record_type]), (STATE 1848, 1, [sym_function_type]), (STATE 1896, 1,
       [sym__type_not_void_not_function]), (STATE 1915, 1, [sym__late_builtin]), (STATE 1976, 1,
       [sym_inferred_type]), (STATE 1984, 1, [sym_final_builtin]), (STATE 2464, 1,
       [sym__simple_formal_parameter]), (STATE 2466, 1, [sym__normal_formal_parameter]), (STATE
       2468, 1, [sym__declared_identifier]), (STATE 2557, 1, [sym__final_const_var_or_type]),
       (STATE 2654, 1, [sym_formal_parameter]), (STATE 2755, 1, [sym__var_or_type]), (STATE 2756,
       1, [sym__type]), (STATE 3040, 1, [sym__default_named_parameter]), (STATE 3283, 1,
       [sym_this]), (STATE 3288, 1, [sym_super]), (STATE 800, 2, [sym_comment,
       sym_documentation_comment]), (STATE 2465, 3, [sym__function_formal_parameter,
       sym_super_formal_parameter, sym_constructor_param])])]"

lemma small_run_228: "small_run 800 31378 ts_small_parse_table_228 801 31520"
  by (simp add: small_simps ts_small_parse_table_228_def)

definition ts_small_parse_table_229 :: "small_group list" where
  "ts_small_parse_table_229 = [
     (31520, 12, [(ACTIONS 3, 1, [anon_sym_SLASH_SLASH]), (ACTIONS 5, 1,
       [anon_sym_SLASH_STAR]), (ACTIONS 7, 1, [anon_sym_SLASH_SLASH_SLASH]), (ACTIONS 9, 1,
       [sym__block_comment]), (ACTIONS 11, 1, [sym__documentation_block_comment]), (ACTIONS 2509,
       1, [anon_sym_LPAREN]), (ACTIONS 2512, 1, [anon_sym_QMARK]), (STATE 818, 1,
       [sym_parameter_type_list]), (STATE 897, 1, [sym_nullable_type]), (STATE 801, 2,
       [sym_comment, sym_documentation_comment]), (ACTIONS 2515, 9, [anon_sym_LT, anon_sym_GT,
       anon_sym_PIPE, anon_sym_AMP, anon_sym_GT_GT, anon_sym_SLASH, anon_sym_BANG, anon_sym_DOT,
       anon_sym_QMARK_DOT]), (ACTIONS 2507, 29, [anon_sym_RBRACE, anon_sym_LBRACK,
       anon_sym_COMMA, anon_sym_RBRACK, anon_sym_COLON, anon_sym_RPAREN, anon_sym_QMARK_QMARK,
       sym_equality_operator, anon_sym_LT_EQ, anon_sym_GT_EQ, anon_sym_CARET, anon_sym_LT_LT,
       anon_sym_GT_GT_GT, sym__additive_operator, anon_sym_STAR, anon_sym_PERCENT,
       anon_sym_TILDE_SLASH, anon_sym_is, anon_sym_as, anon_sym_DOT_DOT, anon_sym_QMARK_DOT_DOT,
       anon_sym_SEMI, anon_sym_EQ_GT, anon_sym_when, anon_sym_case, anon_sym_else,
       anon_sym_Function, anon_sym_AMP_AMP, anon_sym_PIPE_PIPE])]),
     (31594, 8, [(ACTIONS 3, 1, [anon_sym_SLASH_SLASH]), (ACTIONS 5, 1, [anon_sym_SLASH_STAR]),
       (ACTIONS 7, 1, [anon_sym_SLASH_SLASH_SLASH]), (ACTIONS 9, 1, [sym__block_comment]),
       (ACTIONS 11, 1, [sym__documentation_block_comment]), (STATE 802, 2, [sym_comment,
       sym_documentation_comment]), (ACTIONS 1921, 12, [anon_sym_DQUOTE, anon_sym_SQUOTE,
       anon_sym_r_DQUOTE, anon_sym_r_SQUOTE, anon_sym_QMARK, anon_sym_LT, anon_sym_GT,
       anon_sym_PIPE, anon_sym_AMP, anon_sym_GT_GT, anon_sym_SLASH, anon_sym_BANG]), (ACTIONS
       1923, 30, [anon_sym_DQUOTE_DQUOTE_DQUOTE, anon_sym_SQUOTE_SQUOTE_SQUOTE,
       anon_sym_r_DQUOTE_DQUOTE_DQUOTE, anon_sym_r_SQUOTE_SQUOTE_SQUOTE, anon_sym_RBRACE,
       anon_sym_LBRACK, anon_sym_COMMA, anon_sym_RBRACK, anon_sym_COLON, anon_sym_LPAREN,
       anon_sym_RPAREN, anon_sym_QMARK_QMARK, sym_equality_operator, anon_sym_LT_EQ,
       anon_sym_GT_EQ, anon_sym_CARET, anon_sym_LT_LT, anon_sym_GT_GT_GT, sym__additive_operator,
       anon_sym_STAR, anon_sym_PERCENT, anon_sym_TILDE_SLASH, anon_sym_is, anon_sym_as,
       anon_sym_DOT, anon_sym_QMARK_DOT, anon_sym_EQ_GT, anon_sym_when, anon_sym_AMP_AMP,
       anon_sym_PIPE_PIPE])])]"

lemma small_run_229: "small_run 801 31520 ts_small_parse_table_229 803 31660"
  by (simp add: small_simps ts_small_parse_table_229_def)

definition ts_small_parse_table_230 :: "small_group list" where
  "ts_small_parse_table_230 = [
     (31660, 8, [(ACTIONS 3, 1, [anon_sym_SLASH_SLASH]), (ACTIONS 5, 1, [anon_sym_SLASH_STAR]),
       (ACTIONS 7, 1, [anon_sym_SLASH_SLASH_SLASH]), (ACTIONS 9, 1, [sym__block_comment]),
       (ACTIONS 11, 1, [sym__documentation_block_comment]), (STATE 803, 2, [sym_comment,
       sym_documentation_comment]), (ACTIONS 1969, 12, [anon_sym_DQUOTE, anon_sym_SQUOTE,
       anon_sym_r_DQUOTE, anon_sym_r_SQUOTE, anon_sym_QMARK, anon_sym_LT, anon_sym_GT,
       anon_sym_PIPE, anon_sym_AMP, anon_sym_GT_GT, anon_sym_SLASH, anon_sym_BANG]), (ACTIONS
       1971, 30, [anon_sym_DQUOTE_DQUOTE_DQUOTE, anon_sym_SQUOTE_SQUOTE_SQUOTE,
       anon_sym_r_DQUOTE_DQUOTE_DQUOTE, anon_sym_r_SQUOTE_SQUOTE_SQUOTE, anon_sym_RBRACE,
       anon_sym_LBRACK, anon_sym_COMMA, anon_sym_RBRACK, anon_sym_COLON, anon_sym_LPAREN,
       anon_sym_RPAREN, anon_sym_QMARK_QMARK, sym_equality_operator, anon_sym_LT_EQ,
       anon_sym_GT_EQ, anon_sym_CARET, anon_sym_LT_LT, anon_sym_GT_GT_GT, sym__additive_operator,
       anon_sym_STAR, anon_sym_PERCENT, anon_sym_TILDE_SLASH, anon_sym_is, anon_sym_as,
       anon_sym_DOT, anon_sym_QMARK_DOT, anon_sym_EQ_GT, anon_sym_when, anon_sym_AMP_AMP,
       anon_sym_PIPE_PIPE])]),
     (31726, 8, [(ACTIONS 3, 1, [anon_sym_SLASH_SLASH]), (ACTIONS 5, 1, [anon_sym_SLASH_STAR]),
       (ACTIONS 7, 1, [anon_sym_SLASH_SLASH_SLASH]), (ACTIONS 9, 1, [sym__block_comment]),
       (ACTIONS 11, 1, [sym__documentation_block_comment]), (STATE 804, 2, [sym_comment,
       sym_documentation_comment]), (ACTIONS 1925, 12, [anon_sym_DQUOTE, anon_sym_SQUOTE,
       anon_sym_r_DQUOTE, anon_sym_r_SQUOTE, anon_sym_QMARK, anon_sym_LT, anon_sym_GT,
       anon_sym_PIPE, anon_sym_AMP, anon_sym_GT_GT, anon_sym_SLASH, anon_sym_BANG]), (ACTIONS
       1927, 30, [anon_sym_DQUOTE_DQUOTE_DQUOTE, anon_sym_SQUOTE_SQUOTE_SQUOTE,
       anon_sym_r_DQUOTE_DQUOTE_DQUOTE, anon_sym_r_SQUOTE_SQUOTE_SQUOTE, anon_sym_RBRACE,
       anon_sym_LBRACK, anon_sym_COMMA, anon_sym_RBRACK, anon_sym_COLON, anon_sym_LPAREN,
       anon_sym_RPAREN, anon_sym_QMARK_QMARK, sym_equality_operator, anon_sym_LT_EQ,
       anon_sym_GT_EQ, anon_sym_CARET, anon_sym_LT_LT, anon_sym_GT_GT_GT, sym__additive_operator,
       anon_sym_STAR, anon_sym_PERCENT, anon_sym_TILDE_SLASH, anon_sym_is, anon_sym_as,
       anon_sym_DOT, anon_sym_QMARK_DOT, anon_sym_EQ_GT, anon_sym_when, anon_sym_AMP_AMP,
       anon_sym_PIPE_PIPE])])]"

lemma small_run_230: "small_run 803 31660 ts_small_parse_table_230 805 31792"
  by (simp add: small_simps ts_small_parse_table_230_def)

definition ts_small_parse_table_231 :: "small_group list" where
  "ts_small_parse_table_231 = [
     (31792, 12, [(ACTIONS 3, 1, [anon_sym_SLASH_SLASH]), (ACTIONS 5, 1,
       [anon_sym_SLASH_STAR]), (ACTIONS 7, 1, [anon_sym_SLASH_SLASH_SLASH]), (ACTIONS 9, 1,
       [sym__block_comment]), (ACTIONS 11, 1, [sym__documentation_block_comment]), (ACTIONS 2533,
       1, [anon_sym_QMARK]), (ACTIONS 2536, 1, [anon_sym_LT]), (STATE 817, 1,
       [sym_type_arguments]), (STATE 872, 1, [sym_nullable_type]), (STATE 805, 2, [sym_comment,
       sym_documentation_comment]), (ACTIONS 2539, 8, [anon_sym_GT, anon_sym_PIPE, anon_sym_AMP,
       anon_sym_GT_GT, anon_sym_SLASH, anon_sym_BANG, anon_sym_DOT, anon_sym_QMARK_DOT]),
       (ACTIONS 2531, 30, [anon_sym_RBRACE, anon_sym_LBRACK, anon_sym_COMMA, anon_sym_RBRACK,
       anon_sym_COLON, anon_sym_LPAREN, anon_sym_RPAREN, anon_sym_QMARK_QMARK,
       sym_equality_operator, anon_sym_LT_EQ, anon_sym_GT_EQ, anon_sym_CARET, anon_sym_LT_LT,
       anon_sym_GT_GT_GT, sym__additive_operator, anon_sym_STAR, anon_sym_PERCENT,
       anon_sym_TILDE_SLASH, anon_sym_is, anon_sym_as, anon_sym_DOT_DOT, anon_sym_QMARK_DOT_DOT,
       anon_sym_SEMI, anon_sym_EQ_GT, anon_sym_when, anon_sym_case, anon_sym_else,
       anon_sym_Function, anon_sym_AMP_AMP, anon_sym_PIPE_PIPE])]),
     (31866, 8, [(ACTIONS 3, 1, [anon_sym_SLASH_SLASH]), (ACTIONS 5, 1, [anon_sym_SLASH_STAR]),
       (ACTIONS 7, 1, [anon_sym_SLASH_SLASH_SLASH]), (ACTIONS 9, 1, [sym__block_comment]),
       (ACTIONS 11, 1, [sym__documentation_block_comment]), (STATE 806, 2, [sym_comment,
       sym_documentation_comment]), (ACTIONS 1929, 12, [anon_sym_DQUOTE, anon_sym_SQUOTE,
       anon_sym_r_DQUOTE, anon_sym_r_SQUOTE, anon_sym_QMARK, anon_sym_LT, anon_sym_GT,
       anon_sym_PIPE, anon_sym_AMP, anon_sym_GT_GT, anon_sym_SLASH, anon_sym_BANG]), (ACTIONS
       1931, 30, [anon_sym_DQUOTE_DQUOTE_DQUOTE, anon_sym_SQUOTE_SQUOTE_SQUOTE,
       anon_sym_r_DQUOTE_DQUOTE_DQUOTE, anon_sym_r_SQUOTE_SQUOTE_SQUOTE, anon_sym_RBRACE,
       anon_sym_LBRACK, anon_sym_COMMA, anon_sym_RBRACK, anon_sym_COLON, anon_sym_LPAREN,
       anon_sym_RPAREN, anon_sym_QMARK_QMARK, sym_equality_operator, anon_sym_LT_EQ,
       anon_sym_GT_EQ, anon_sym_CARET, anon_sym_LT_LT, anon_sym_GT_GT_GT, sym__additive_operator,
       anon_sym_STAR, anon_sym_PERCENT, anon_sym_TILDE_SLASH, anon_sym_is, anon_sym_as,
       anon_sym_DOT, anon_sym_QMARK_DOT, anon_sym_EQ_GT, anon_sym_when, anon_sym_AMP_AMP,
       anon_sym_PIPE_PIPE])])]"

lemma small_run_231: "small_run 805 31792 ts_small_parse_table_231 807 31932"
  by (simp add: small_simps ts_small_parse_table_231_def)

definition ts_small_parse_table_232 :: "small_group list" where
  "ts_small_parse_table_232 = [
     (31932, 8, [(ACTIONS 3, 1, [anon_sym_SLASH_SLASH]), (ACTIONS 5, 1, [anon_sym_SLASH_STAR]),
       (ACTIONS 7, 1, [anon_sym_SLASH_SLASH_SLASH]), (ACTIONS 9, 1, [sym__block_comment]),
       (ACTIONS 11, 1, [sym__documentation_block_comment]), (STATE 807, 2, [sym_comment,
       sym_documentation_comment]), (ACTIONS 1945, 12, [anon_sym_DQUOTE, anon_sym_SQUOTE,
       anon_sym_r_DQUOTE, anon_sym_r_SQUOTE, anon_sym_QMARK, anon_sym_LT, anon_sym_GT,
       anon_sym_PIPE, anon_sym_AMP, anon_sym_GT_GT, anon_sym_SLASH, anon_sym_BANG]), (ACTIONS
       1947, 30, [anon_sym_DQUOTE_DQUOTE_DQUOTE, anon_sym_SQUOTE_SQUOTE_SQUOTE,
       anon_sym_r_DQUOTE_DQUOTE_DQUOTE, anon_sym_r_SQUOTE_SQUOTE_SQUOTE, anon_sym_RBRACE,
       anon_sym_LBRACK, anon_sym_COMMA, anon_sym_RBRACK, anon_sym_COLON, anon_sym_LPAREN,
       anon_sym_RPAREN, anon_sym_QMARK_QMARK, sym_equality_operator, anon_sym_LT_EQ,
       anon_sym_GT_EQ, anon_sym_CARET, anon_sym_LT_LT, anon_sym_GT_GT_GT, sym__additive_operator,
       anon_sym_STAR, anon_sym_PERCENT, anon_sym_TILDE_SLASH, anon_sym_is, anon_sym_as,
       anon_sym_DOT, anon_sym_QMARK_DOT, anon_sym_EQ_GT, anon_sym_when, anon_sym_AMP_AMP,
       anon_sym_PIPE_PIPE])]),
     (31998, 8, [(ACTIONS 3, 1, [anon_sym_SLASH_SLASH]), (ACTIONS 5, 1, [anon_sym_SLASH_STAR]),
       (ACTIONS 7, 1, [anon_sym_SLASH_SLASH_SLASH]), (ACTIONS 9, 1, [sym__block_comment]),
       (ACTIONS 11, 1, [sym__documentation_block_comment]), (STATE 808, 2, [sym_comment,
       sym_documentation_comment]), (ACTIONS 1949, 12, [anon_sym_DQUOTE, anon_sym_SQUOTE,
       anon_sym_r_DQUOTE, anon_sym_r_SQUOTE, anon_sym_QMARK, anon_sym_LT, anon_sym_GT,
       anon_sym_PIPE, anon_sym_AMP, anon_sym_GT_GT, anon_sym_SLASH, anon_sym_BANG]), (ACTIONS
       1951, 30, [anon_sym_DQUOTE_DQUOTE_DQUOTE, anon_sym_SQUOTE_SQUOTE_SQUOTE,
       anon_sym_r_DQUOTE_DQUOTE_DQUOTE, anon_sym_r_SQUOTE_SQUOTE_SQUOTE, anon_sym_RBRACE,
       anon_sym_LBRACK, anon_sym_COMMA, anon_sym_RBRACK, anon_sym_COLON, anon_sym_LPAREN,
       anon_sym_RPAREN, anon_sym_QMARK_QMARK, sym_equality_operator, anon_sym_LT_EQ,
       anon_sym_GT_EQ, anon_sym_CARET, anon_sym_LT_LT, anon_sym_GT_GT_GT, sym__additive_operator,
       anon_sym_STAR, anon_sym_PERCENT, anon_sym_TILDE_SLASH, anon_sym_is, anon_sym_as,
       anon_sym_DOT, anon_sym_QMARK_DOT, anon_sym_EQ_GT, anon_sym_when, anon_sym_AMP_AMP,
       anon_sym_PIPE_PIPE])])]"

lemma small_run_232: "small_run 807 31932 ts_small_parse_table_232 809 32064"
  by (simp add: small_simps ts_small_parse_table_232_def)

definition ts_small_parse_table_233 :: "small_group list" where
  "ts_small_parse_table_233 = [
     (32064, 8, [(ACTIONS 3, 1, [anon_sym_SLASH_SLASH]), (ACTIONS 5, 1, [anon_sym_SLASH_STAR]),
       (ACTIONS 7, 1, [anon_sym_SLASH_SLASH_SLASH]), (ACTIONS 9, 1, [sym__block_comment]),
       (ACTIONS 11, 1, [sym__documentation_block_comment]), (STATE 809, 2, [sym_comment,
       sym_documentation_comment]), (ACTIONS 1973, 12, [anon_sym_DQUOTE, anon_sym_SQUOTE,
       anon_sym_r_DQUOTE, anon_sym_r_SQUOTE, anon_sym_QMARK, anon_sym_LT, anon_sym_GT,
       anon_sym_PIPE, anon_sym_AMP, anon_sym_GT_GT, anon_sym_SLASH, anon_sym_BANG]), (ACTIONS
       1975, 30, [anon_sym_DQUOTE_DQUOTE_DQUOTE, anon_sym_SQUOTE_SQUOTE_SQUOTE,
       anon_sym_r_DQUOTE_DQUOTE_DQUOTE, anon_sym_r_SQUOTE_SQUOTE_SQUOTE, anon_sym_RBRACE,
       anon_sym_LBRACK, anon_sym_COMMA, anon_sym_RBRACK, anon_sym_COLON, anon_sym_LPAREN,
       anon_sym_RPAREN, anon_sym_QMARK_QMARK, sym_equality_operator, anon_sym_LT_EQ,
       anon_sym_GT_EQ, anon_sym_CARET, anon_sym_LT_LT, anon_sym_GT_GT_GT, sym__additive_operator,
       anon_sym_STAR, anon_sym_PERCENT, anon_sym_TILDE_SLASH, anon_sym_is, anon_sym_as,
       anon_sym_DOT, anon_sym_QMARK_DOT, anon_sym_EQ_GT, anon_sym_when, anon_sym_AMP_AMP,
       anon_sym_PIPE_PIPE])]),
     (32130, 8, [(ACTIONS 3, 1, [anon_sym_SLASH_SLASH]), (ACTIONS 5, 1, [anon_sym_SLASH_STAR]),
       (ACTIONS 7, 1, [anon_sym_SLASH_SLASH_SLASH]), (ACTIONS 9, 1, [sym__block_comment]),
       (ACTIONS 11, 1, [sym__documentation_block_comment]), (STATE 810, 2, [sym_comment,
       sym_documentation_comment]), (ACTIONS 1981, 12, [anon_sym_DQUOTE, anon_sym_SQUOTE,
       anon_sym_r_DQUOTE, anon_sym_r_SQUOTE, anon_sym_QMARK, anon_sym_LT, anon_sym_GT,
       anon_sym_PIPE, anon_sym_AMP, anon_sym_GT_GT, anon_sym_SLASH, anon_sym_BANG]), (ACTIONS
       1983, 30, [anon_sym_DQUOTE_DQUOTE_DQUOTE, anon_sym_SQUOTE_SQUOTE_SQUOTE,
       anon_sym_r_DQUOTE_DQUOTE_DQUOTE, anon_sym_r_SQUOTE_SQUOTE_SQUOTE, anon_sym_RBRACE,
       anon_sym_LBRACK, anon_sym_COMMA, anon_sym_RBRACK, anon_sym_COLON, anon_sym_LPAREN,
       anon_sym_RPAREN, anon_sym_QMARK_QMARK, sym_equality_operator, anon_sym_LT_EQ,
       anon_sym_GT_EQ, anon_sym_CARET, anon_sym_LT_LT, anon_sym_GT_GT_GT, sym__additive_operator,
       anon_sym_STAR, anon_sym_PERCENT, anon_sym_TILDE_SLASH, anon_sym_is, anon_sym_as,
       anon_sym_DOT, anon_sym_QMARK_DOT, anon_sym_EQ_GT, anon_sym_when, anon_sym_AMP_AMP,
       anon_sym_PIPE_PIPE])])]"

lemma small_run_233: "small_run 809 32064 ts_small_parse_table_233 811 32196"
  by (simp add: small_simps ts_small_parse_table_233_def)

definition ts_small_parse_table_234 :: "small_group list" where
  "ts_small_parse_table_234 = [
     (32196, 8, [(ACTIONS 3, 1, [anon_sym_SLASH_SLASH]), (ACTIONS 5, 1, [anon_sym_SLASH_STAR]),
       (ACTIONS 7, 1, [anon_sym_SLASH_SLASH_SLASH]), (ACTIONS 9, 1, [sym__block_comment]),
       (ACTIONS 11, 1, [sym__documentation_block_comment]), (STATE 811, 2, [sym_comment,
       sym_documentation_comment]), (ACTIONS 1917, 12, [anon_sym_DQUOTE, anon_sym_SQUOTE,
       anon_sym_r_DQUOTE, anon_sym_r_SQUOTE, anon_sym_QMARK, anon_sym_LT, anon_sym_GT,
       anon_sym_PIPE, anon_sym_AMP, anon_sym_GT_GT, anon_sym_SLASH, anon_sym_BANG]), (ACTIONS
       1919, 30, [anon_sym_DQUOTE_DQUOTE_DQUOTE, anon_sym_SQUOTE_SQUOTE_SQUOTE,
       anon_sym_r_DQUOTE_DQUOTE_DQUOTE, anon_sym_r_SQUOTE_SQUOTE_SQUOTE, anon_sym_RBRACE,
       anon_sym_LBRACK, anon_sym_COMMA, anon_sym_RBRACK, anon_sym_COLON, anon_sym_LPAREN,
       anon_sym_RPAREN, anon_sym_QMARK_QMARK, sym_equality_operator, anon_sym_LT_EQ,
       anon_sym_GT_EQ, anon_sym_CARET, anon_sym_LT_LT, anon_sym_GT_GT_GT, sym__additive_operator,
       anon_sym_STAR, anon_sym_PERCENT, anon_sym_TILDE_SLASH, anon_sym_is, anon_sym_as,
       anon_sym_DOT, anon_sym_QMARK_DOT, anon_sym_EQ_GT, anon_sym_when, anon_sym_AMP_AMP,
       anon_sym_PIPE_PIPE])]),
     (32262, 8, [(ACTIONS 3, 1, [anon_sym_SLASH_SLASH]), (ACTIONS 5, 1, [anon_sym_SLASH_STAR]),
       (ACTIONS 7, 1, [anon_sym_SLASH_SLASH_SLASH]), (ACTIONS 9, 1, [sym__block_comment]),
       (ACTIONS 11, 1, [sym__documentation_block_comment]), (STATE 812, 2, [sym_comment,
       sym_documentation_comment]), (ACTIONS 1889, 12, [anon_sym_DQUOTE, anon_sym_SQUOTE,
       anon_sym_r_DQUOTE, anon_sym_r_SQUOTE, anon_sym_QMARK, anon_sym_LT, anon_sym_GT,
       anon_sym_PIPE, anon_sym_AMP, anon_sym_GT_GT, anon_sym_SLASH, anon_sym_BANG]), (ACTIONS
       1891, 30, [anon_sym_DQUOTE_DQUOTE_DQUOTE, anon_sym_SQUOTE_SQUOTE_SQUOTE,
       anon_sym_r_DQUOTE_DQUOTE_DQUOTE, anon_sym_r_SQUOTE_SQUOTE_SQUOTE, anon_sym_RBRACE,
       anon_sym_LBRACK, anon_sym_COMMA, anon_sym_RBRACK, anon_sym_COLON, anon_sym_LPAREN,
       anon_sym_RPAREN, anon_sym_QMARK_QMARK, sym_equality_operator, anon_sym_LT_EQ,
       anon_sym_GT_EQ, anon_sym_CARET, anon_sym_LT_LT, anon_sym_GT_GT_GT, sym__additive_operator,
       anon_sym_STAR, anon_sym_PERCENT, anon_sym_TILDE_SLASH, anon_sym_is, anon_sym_as,
       anon_sym_DOT, anon_sym_QMARK_DOT, anon_sym_EQ_GT, anon_sym_when, anon_sym_AMP_AMP,
       anon_sym_PIPE_PIPE])])]"

lemma small_run_234: "small_run 811 32196 ts_small_parse_table_234 813 32328"
  by (simp add: small_simps ts_small_parse_table_234_def)

definition ts_small_parse_table_235 :: "small_group list" where
  "ts_small_parse_table_235 = [
     (32328, 8, [(ACTIONS 3, 1, [anon_sym_SLASH_SLASH]), (ACTIONS 5, 1, [anon_sym_SLASH_STAR]),
       (ACTIONS 7, 1, [anon_sym_SLASH_SLASH_SLASH]), (ACTIONS 9, 1, [sym__block_comment]),
       (ACTIONS 11, 1, [sym__documentation_block_comment]), (STATE 813, 2, [sym_comment,
       sym_documentation_comment]), (ACTIONS 1989, 12, [anon_sym_DQUOTE, anon_sym_SQUOTE,
       anon_sym_r_DQUOTE, anon_sym_r_SQUOTE, anon_sym_QMARK, anon_sym_LT, anon_sym_GT,
       anon_sym_PIPE, anon_sym_AMP, anon_sym_GT_GT, anon_sym_SLASH, anon_sym_BANG]), (ACTIONS
       1991, 30, [anon_sym_DQUOTE_DQUOTE_DQUOTE, anon_sym_SQUOTE_SQUOTE_SQUOTE,
       anon_sym_r_DQUOTE_DQUOTE_DQUOTE, anon_sym_r_SQUOTE_SQUOTE_SQUOTE, anon_sym_RBRACE,
       anon_sym_LBRACK, anon_sym_COMMA, anon_sym_RBRACK, anon_sym_COLON, anon_sym_LPAREN,
       anon_sym_RPAREN, anon_sym_QMARK_QMARK, sym_equality_operator, anon_sym_LT_EQ,
       anon_sym_GT_EQ, anon_sym_CARET, anon_sym_LT_LT, anon_sym_GT_GT_GT, sym__additive_operator,
       anon_sym_STAR, anon_sym_PERCENT, anon_sym_TILDE_SLASH, anon_sym_is, anon_sym_as,
       anon_sym_DOT, anon_sym_QMARK_DOT, anon_sym_EQ_GT, anon_sym_when, anon_sym_AMP_AMP,
       anon_sym_PIPE_PIPE])]),
     (32394, 8, [(ACTIONS 3, 1, [anon_sym_SLASH_SLASH]), (ACTIONS 5, 1, [anon_sym_SLASH_STAR]),
       (ACTIONS 7, 1, [anon_sym_SLASH_SLASH_SLASH]), (ACTIONS 9, 1, [sym__block_comment]),
       (ACTIONS 11, 1, [sym__documentation_block_comment]), (STATE 814, 2, [sym_comment,
       sym_documentation_comment]), (ACTIONS 1957, 12, [anon_sym_DQUOTE, anon_sym_SQUOTE,
       anon_sym_r_DQUOTE, anon_sym_r_SQUOTE, anon_sym_QMARK, anon_sym_LT, anon_sym_GT,
       anon_sym_PIPE, anon_sym_AMP, anon_sym_GT_GT, anon_sym_SLASH, anon_sym_BANG]), (ACTIONS
       1959, 30, [anon_sym_DQUOTE_DQUOTE_DQUOTE, anon_sym_SQUOTE_SQUOTE_SQUOTE,
       anon_sym_r_DQUOTE_DQUOTE_DQUOTE, anon_sym_r_SQUOTE_SQUOTE_SQUOTE, anon_sym_RBRACE,
       anon_sym_LBRACK, anon_sym_COMMA, anon_sym_RBRACK, anon_sym_COLON, anon_sym_LPAREN,
       anon_sym_RPAREN, anon_sym_QMARK_QMARK, sym_equality_operator, anon_sym_LT_EQ,
       anon_sym_GT_EQ, anon_sym_CARET, anon_sym_LT_LT, anon_sym_GT_GT_GT, sym__additive_operator,
       anon_sym_STAR, anon_sym_PERCENT, anon_sym_TILDE_SLASH, anon_sym_is, anon_sym_as,
       anon_sym_DOT, anon_sym_QMARK_DOT, anon_sym_EQ_GT, anon_sym_when, anon_sym_AMP_AMP,
       anon_sym_PIPE_PIPE])])]"

lemma small_run_235: "small_run 813 32328 ts_small_parse_table_235 815 32460"
  by (simp add: small_simps ts_small_parse_table_235_def)

definition ts_small_parse_table_236 :: "small_group list" where
  "ts_small_parse_table_236 = [
     (32460, 8, [(ACTIONS 3, 1, [anon_sym_SLASH_SLASH]), (ACTIONS 5, 1, [anon_sym_SLASH_STAR]),
       (ACTIONS 7, 1, [anon_sym_SLASH_SLASH_SLASH]), (ACTIONS 9, 1, [sym__block_comment]),
       (ACTIONS 11, 1, [sym__documentation_block_comment]), (STATE 815, 2, [sym_comment,
       sym_documentation_comment]), (ACTIONS 1977, 12, [anon_sym_DQUOTE, anon_sym_SQUOTE,
       anon_sym_r_DQUOTE, anon_sym_r_SQUOTE, anon_sym_QMARK, anon_sym_LT, anon_sym_GT,
       anon_sym_PIPE, anon_sym_AMP, anon_sym_GT_GT, anon_sym_SLASH, anon_sym_BANG]), (ACTIONS
       1979, 30, [anon_sym_DQUOTE_DQUOTE_DQUOTE, anon_sym_SQUOTE_SQUOTE_SQUOTE,
       anon_sym_r_DQUOTE_DQUOTE_DQUOTE, anon_sym_r_SQUOTE_SQUOTE_SQUOTE, anon_sym_RBRACE,
       anon_sym_LBRACK, anon_sym_COMMA, anon_sym_RBRACK, anon_sym_COLON, anon_sym_LPAREN,
       anon_sym_RPAREN, anon_sym_QMARK_QMARK, sym_equality_operator, anon_sym_LT_EQ,
       anon_sym_GT_EQ, anon_sym_CARET, anon_sym_LT_LT, anon_sym_GT_GT_GT, sym__additive_operator,
       anon_sym_STAR, anon_sym_PERCENT, anon_sym_TILDE_SLASH, anon_sym_is, anon_sym_as,
       anon_sym_DOT, anon_sym_QMARK_DOT, anon_sym_EQ_GT, anon_sym_when, anon_sym_AMP_AMP,
       anon_sym_PIPE_PIPE])]),
     (32526, 11, [(ACTIONS 3, 1, [anon_sym_SLASH_SLASH]), (ACTIONS 5, 1,
       [anon_sym_SLASH_STAR]), (ACTIONS 7, 1, [anon_sym_SLASH_SLASH_SLASH]), (ACTIONS 9, 1,
       [sym__block_comment]), (ACTIONS 11, 1, [sym__documentation_block_comment]), (ACTIONS 2543,
       1, [anon_sym_QMARK]), (ACTIONS 2548, 1, [anon_sym_Function]), (STATE 888, 1,
       [sym_nullable_type]), (STATE 816, 2, [sym_comment, sym_documentation_comment]), (ACTIONS
       2546, 9, [anon_sym_LT, anon_sym_GT, anon_sym_PIPE, anon_sym_AMP, anon_sym_GT_GT,
       anon_sym_SLASH, anon_sym_BANG, anon_sym_DOT, anon_sym_QMARK_DOT]), (ACTIONS 2541, 29,
       [anon_sym_RBRACE, anon_sym_LBRACK, anon_sym_COMMA, anon_sym_RBRACK, anon_sym_COLON,
       anon_sym_LPAREN, anon_sym_RPAREN, anon_sym_QMARK_QMARK, sym_equality_operator,
       anon_sym_LT_EQ, anon_sym_GT_EQ, anon_sym_CARET, anon_sym_LT_LT, anon_sym_GT_GT_GT,
       sym__additive_operator, anon_sym_STAR, anon_sym_PERCENT, anon_sym_TILDE_SLASH,
       anon_sym_is, anon_sym_as, anon_sym_DOT_DOT, anon_sym_QMARK_DOT_DOT, anon_sym_SEMI,
       anon_sym_EQ_GT, anon_sym_when, anon_sym_case, anon_sym_else, anon_sym_AMP_AMP,
       anon_sym_PIPE_PIPE])])]"

lemma small_run_236: "small_run 815 32460 ts_small_parse_table_236 817 32597"
  by (simp add: small_simps ts_small_parse_table_236_def)

definition ts_small_parse_table_237 :: "small_group list" where
  "ts_small_parse_table_237 = [
     (32597, 10, [(ACTIONS 3, 1, [anon_sym_SLASH_SLASH]), (ACTIONS 5, 1,
       [anon_sym_SLASH_STAR]), (ACTIONS 7, 1, [anon_sym_SLASH_SLASH_SLASH]), (ACTIONS 9, 1,
       [sym__block_comment]), (ACTIONS 11, 1, [sym__documentation_block_comment]), (ACTIONS 2552,
       1, [anon_sym_QMARK]), (STATE 892, 1, [sym_nullable_type]), (STATE 817, 2, [sym_comment,
       sym_documentation_comment]), (ACTIONS 2555, 9, [anon_sym_LT, anon_sym_GT, anon_sym_PIPE,
       anon_sym_AMP, anon_sym_GT_GT, anon_sym_SLASH, anon_sym_BANG, anon_sym_DOT,
       anon_sym_QMARK_DOT]), (ACTIONS 2550, 30, [anon_sym_RBRACE, anon_sym_LBRACK,
       anon_sym_COMMA, anon_sym_RBRACK, anon_sym_COLON, anon_sym_LPAREN, anon_sym_RPAREN,
       anon_sym_QMARK_QMARK, sym_equality_operator, anon_sym_LT_EQ, anon_sym_GT_EQ,
       anon_sym_CARET, anon_sym_LT_LT, anon_sym_GT_GT_GT, sym__additive_operator, anon_sym_STAR,
       anon_sym_PERCENT, anon_sym_TILDE_SLASH, anon_sym_is, anon_sym_as, anon_sym_DOT_DOT,
       anon_sym_QMARK_DOT_DOT, anon_sym_SEMI, anon_sym_EQ_GT, anon_sym_when, anon_sym_case,
       anon_sym_else, anon_sym_Function, anon_sym_AMP_AMP, anon_sym_PIPE_PIPE])]),
     (32666, 10, [(ACTIONS 3, 1, [anon_sym_SLASH_SLASH]), (ACTIONS 5, 1,
       [anon_sym_SLASH_STAR]), (ACTIONS 7, 1, [anon_sym_SLASH_SLASH_SLASH]), (ACTIONS 9, 1,
       [sym__block_comment]), (ACTIONS 11, 1, [sym__documentation_block_comment]), (ACTIONS 2484,
       1, [anon_sym_QMARK]), (STATE 894, 1, [sym_nullable_type]), (STATE 818, 2, [sym_comment,
       sym_documentation_comment]), (ACTIONS 2487, 9, [anon_sym_LT, anon_sym_GT, anon_sym_PIPE,
       anon_sym_AMP, anon_sym_GT_GT, anon_sym_SLASH, anon_sym_BANG, anon_sym_DOT,
       anon_sym_QMARK_DOT]), (ACTIONS 2479, 30, [anon_sym_RBRACE, anon_sym_LBRACK,
       anon_sym_COMMA, anon_sym_RBRACK, anon_sym_COLON, anon_sym_LPAREN, anon_sym_RPAREN,
       anon_sym_QMARK_QMARK, sym_equality_operator, anon_sym_LT_EQ, anon_sym_GT_EQ,
       anon_sym_CARET, anon_sym_LT_LT, anon_sym_GT_GT_GT, sym__additive_operator, anon_sym_STAR,
       anon_sym_PERCENT, anon_sym_TILDE_SLASH, anon_sym_is, anon_sym_as, anon_sym_DOT_DOT,
       anon_sym_QMARK_DOT_DOT, anon_sym_SEMI, anon_sym_EQ_GT, anon_sym_when, anon_sym_case,
       anon_sym_else, anon_sym_Function, anon_sym_AMP_AMP, anon_sym_PIPE_PIPE])])]"

lemma small_run_237: "small_run 817 32597 ts_small_parse_table_237 819 32735"
  by (simp add: small_simps ts_small_parse_table_237_def)

definition ts_small_parse_table_238 :: "small_group list" where
  "ts_small_parse_table_238 = [
     (32735, 11, [(ACTIONS 3, 1, [anon_sym_SLASH_SLASH]), (ACTIONS 5, 1,
       [anon_sym_SLASH_STAR]), (ACTIONS 7, 1, [anon_sym_SLASH_SLASH_SLASH]), (ACTIONS 9, 1,
       [sym__block_comment]), (ACTIONS 11, 1, [sym__documentation_block_comment]), (STATE 829, 1,
       [aux_sym__expression_repeat1]), (STATE 914, 1, [sym_cascade_section]), (ACTIONS 2561, 2,
       [anon_sym_DOT_DOT, anon_sym_QMARK_DOT_DOT]), (STATE 819, 2, [sym_comment,
       sym_documentation_comment]), (ACTIONS 2559, 10, [anon_sym_QMARK, anon_sym_LT, anon_sym_GT,
       anon_sym_PIPE, anon_sym_AMP, anon_sym_GT_GT, anon_sym_SLASH, anon_sym_BANG, anon_sym_DOT,
       anon_sym_QMARK_DOT]), (ACTIONS 2557, 27, [anon_sym_RBRACE, anon_sym_LBRACK,
       anon_sym_COMMA, anon_sym_RBRACK, anon_sym_COLON, anon_sym_LPAREN, anon_sym_RPAREN,
       anon_sym_QMARK_QMARK, sym_equality_operator, anon_sym_LT_EQ, anon_sym_GT_EQ,
       anon_sym_CARET, anon_sym_LT_LT, anon_sym_GT_GT_GT, sym__additive_operator, anon_sym_STAR,
       anon_sym_PERCENT, anon_sym_TILDE_SLASH, anon_sym_is, anon_sym_as, anon_sym_SEMI,
       anon_sym_EQ_GT, anon_sym_when, anon_sym_case, anon_sym_else, anon_sym_AMP_AMP,
       anon_sym_PIPE_PIPE])]),
     (32806, 10, [(ACTIONS 3, 1, [anon_sym_SLASH_SLASH]), (ACTIONS 5, 1,
       [anon_sym_SLASH_STAR]), (ACTIONS 7, 1, [anon_sym_SLASH_SLASH_SLASH]), (ACTIONS 9, 1,
       [sym__block_comment]), (ACTIONS 11, 1, [sym__documentation_block_comment]), (ACTIONS 2564,
       1, [anon_sym_PIPE_PIPE]), (STATE 365, 1, [sym_logical_or_operator]), (STATE 820, 3,
       [sym_comment, sym_documentation_comment, aux_sym_logical_or_expression_repeat1]), (ACTIONS
       1416, 10, [anon_sym_QMARK, anon_sym_LT, anon_sym_GT, anon_sym_PIPE, anon_sym_AMP,
       anon_sym_GT_GT, anon_sym_SLASH, anon_sym_BANG, anon_sym_DOT, anon_sym_QMARK_DOT]),
       (ACTIONS 1414, 28, [anon_sym_RBRACE, anon_sym_LBRACK, anon_sym_COMMA, anon_sym_RBRACK,
       anon_sym_COLON, anon_sym_LPAREN, anon_sym_RPAREN, anon_sym_QMARK_QMARK,
       sym_equality_operator, anon_sym_LT_EQ, anon_sym_GT_EQ, anon_sym_CARET, anon_sym_LT_LT,
       anon_sym_GT_GT_GT, sym__additive_operator, anon_sym_STAR, anon_sym_PERCENT,
       anon_sym_TILDE_SLASH, anon_sym_is, anon_sym_as, anon_sym_DOT_DOT, anon_sym_QMARK_DOT_DOT,
       anon_sym_SEMI, anon_sym_EQ_GT, anon_sym_when, anon_sym_case, anon_sym_else,
       anon_sym_AMP_AMP])])]"

lemma small_run_238: "small_run 819 32735 ts_small_parse_table_238 821 32875"
  by (simp add: small_simps ts_small_parse_table_238_def)

definition ts_small_parse_table_239 :: "small_group list" where
  "ts_small_parse_table_239 = [
     (32875, 10, [(ACTIONS 3, 1, [anon_sym_SLASH_SLASH]), (ACTIONS 5, 1,
       [anon_sym_SLASH_STAR]), (ACTIONS 7, 1, [anon_sym_SLASH_SLASH_SLASH]), (ACTIONS 9, 1,
       [sym__block_comment]), (ACTIONS 11, 1, [sym__documentation_block_comment]), (ACTIONS 2569,
       1, [anon_sym_QMARK]), (STATE 847, 1, [sym_nullable_type]), (STATE 821, 2, [sym_comment,
       sym_documentation_comment]), (ACTIONS 2572, 9, [anon_sym_LT, anon_sym_GT, anon_sym_PIPE,
       anon_sym_AMP, anon_sym_GT_GT, anon_sym_SLASH, anon_sym_BANG, anon_sym_DOT,
       anon_sym_QMARK_DOT]), (ACTIONS 2567, 30, [anon_sym_RBRACE, anon_sym_LBRACK,
       anon_sym_COMMA, anon_sym_RBRACK, anon_sym_COLON, anon_sym_LPAREN, anon_sym_RPAREN,
       anon_sym_QMARK_QMARK, sym_equality_operator, anon_sym_LT_EQ, anon_sym_GT_EQ,
       anon_sym_CARET, anon_sym_LT_LT, anon_sym_GT_GT_GT, sym__additive_operator, anon_sym_STAR,
       anon_sym_PERCENT, anon_sym_TILDE_SLASH, anon_sym_is, anon_sym_as, anon_sym_DOT_DOT,
       anon_sym_QMARK_DOT_DOT, anon_sym_SEMI, anon_sym_EQ_GT, anon_sym_when, anon_sym_case,
       anon_sym_else, anon_sym_Function, anon_sym_AMP_AMP, anon_sym_PIPE_PIPE])]),
     (32944, 10, [(ACTIONS 3, 1, [anon_sym_SLASH_SLASH]), (ACTIONS 5, 1,
       [anon_sym_SLASH_STAR]), (ACTIONS 7, 1, [anon_sym_SLASH_SLASH_SLASH]), (ACTIONS 9, 1,
       [sym__block_comment]), (ACTIONS 11, 1, [sym__documentation_block_comment]), (ACTIONS 2574,
       1, [anon_sym_AMP_AMP]), (STATE 366, 1, [sym_logical_and_operator]), (STATE 822, 3,
       [sym_comment, sym_documentation_comment, aux_sym_logical_and_expression_repeat1]),
       (ACTIONS 1434, 10, [anon_sym_QMARK, anon_sym_LT, anon_sym_GT, anon_sym_PIPE, anon_sym_AMP,
       anon_sym_GT_GT, anon_sym_SLASH, anon_sym_BANG, anon_sym_DOT, anon_sym_QMARK_DOT]),
       (ACTIONS 1432, 28, [anon_sym_RBRACE, anon_sym_LBRACK, anon_sym_COMMA, anon_sym_RBRACK,
       anon_sym_COLON, anon_sym_LPAREN, anon_sym_RPAREN, anon_sym_QMARK_QMARK,
       sym_equality_operator, anon_sym_LT_EQ, anon_sym_GT_EQ, anon_sym_CARET, anon_sym_LT_LT,
       anon_sym_GT_GT_GT, sym__additive_operator, anon_sym_STAR, anon_sym_PERCENT,
       anon_sym_TILDE_SLASH, anon_sym_is, anon_sym_as, anon_sym_DOT_DOT, anon_sym_QMARK_DOT_DOT,
       anon_sym_SEMI, anon_sym_EQ_GT, anon_sym_when, anon_sym_case, anon_sym_else,
       anon_sym_PIPE_PIPE])])]"

lemma small_run_239: "small_run 821 32875 ts_small_parse_table_239 823 33013"
  by (simp add: small_simps ts_small_parse_table_239_def)

definition ts_small_parse_table_240 :: "small_group list" where
  "ts_small_parse_table_240 = [
     (33013, 27, [(ACTIONS 3, 1, [anon_sym_SLASH_SLASH]), (ACTIONS 5, 1,
       [anon_sym_SLASH_STAR]), (ACTIONS 7, 1, [anon_sym_SLASH_SLASH_SLASH]), (ACTIONS 9, 1,
       [sym__block_comment]), (ACTIONS 11, 1, [sym__documentation_block_comment]), (ACTIONS 1067,
       1, [anon_sym_EQ]), (ACTIONS 1071, 1, [anon_sym_async]), (ACTIONS 2419, 1,
       [anon_sym_LBRACK]), (ACTIONS 2421, 1, [anon_sym_LPAREN]), (ACTIONS 2423, 1,
       [anon_sym_QMARK]), (ACTIONS 2425, 1, [anon_sym_LT]), (ACTIONS 2427, 1, [anon_sym_DOT]),
       (ACTIONS 2429, 1, [anon_sym_QMARK_DOT]), (STATE 284, 1, [sym__assignment_operator]),
       (STATE 874, 1, [aux_sym_cascade_section_repeat1]), (STATE 997, 1,
       [sym__assignable_selector]), (STATE 1088, 1, [sym_argument_part]), (STATE 1109, 1,
       [sym_arguments]), (STATE 1141, 1, [sym__cascade_subsection]), (STATE 1145, 1,
       [sym_index_selector]), (STATE 1198, 1, [aux_sym_cascade_section_repeat2]), (STATE 1965, 1,
       [sym__cascade_assignment_section]), (STATE 3052, 1, [sym_type_arguments]), (STATE 823, 2,
       [sym_comment, sym_documentation_comment]), (STATE 1138, 2,
       [sym_unconditional_assignable_selector, sym_conditional_assignable_selector]), (ACTIONS
       1065, 8, [anon_sym_LBRACE, anon_sym_COMMA, anon_sym_DOT_DOT, anon_sym_QMARK_DOT_DOT,
       anon_sym_SEMI, anon_sym_EQ_GT, anon_sym_async_STAR, anon_sym_sync_STAR]), (ACTIONS 1069,
       13, [anon_sym_PLUS_EQ, anon_sym_DASH_EQ, anon_sym_STAR_EQ, anon_sym_SLASH_EQ,
       anon_sym_PERCENT_EQ, anon_sym_TILDE_SLASH_EQ, anon_sym_LT_LT_EQ, anon_sym_GT_GT_EQ,
       anon_sym_GT_GT_GT_EQ, anon_sym_AMP_EQ, anon_sym_CARET_EQ, anon_sym_PIPE_EQ,
       anon_sym_QMARK_QMARK_EQ])]),
     (33116, 10, [(ACTIONS 3, 1, [anon_sym_SLASH_SLASH]), (ACTIONS 5, 1,
       [anon_sym_SLASH_STAR]), (ACTIONS 7, 1, [anon_sym_SLASH_SLASH_SLASH]), (ACTIONS 9, 1,
       [sym__block_comment]), (ACTIONS 11, 1, [sym__documentation_block_comment]), (ACTIONS 2577,
       1, [sym__additive_operator]), (STATE 368, 1, [sym_additive_operator]), (STATE 824, 3,
       [sym_comment, sym_documentation_comment, aux_sym_additive_expression_repeat1]), (ACTIONS
       1355, 10, [anon_sym_QMARK, anon_sym_LT, anon_sym_GT, anon_sym_PIPE, anon_sym_AMP,
       anon_sym_GT_GT, anon_sym_SLASH, anon_sym_BANG, anon_sym_DOT, anon_sym_QMARK_DOT]),
       (ACTIONS 1353, 28, [anon_sym_RBRACE, anon_sym_LBRACK, anon_sym_COMMA, anon_sym_RBRACK,
       anon_sym_COLON, anon_sym_LPAREN, anon_sym_RPAREN, anon_sym_QMARK_QMARK,
       sym_equality_operator, anon_sym_LT_EQ, anon_sym_GT_EQ, anon_sym_CARET, anon_sym_LT_LT,
       anon_sym_GT_GT_GT, anon_sym_STAR, anon_sym_PERCENT, anon_sym_TILDE_SLASH, anon_sym_is,
       anon_sym_as, anon_sym_DOT_DOT, anon_sym_QMARK_DOT_DOT, anon_sym_SEMI, anon_sym_EQ_GT,
       anon_sym_when, anon_sym_case, anon_sym_else, anon_sym_AMP_AMP, anon_sym_PIPE_PIPE])])]"

lemma small_run_240: "small_run 823 33013 ts_small_parse_table_240 825 33185"
  by (simp add: small_simps ts_small_parse_table_240_def)

definition ts_small_parse_table_241 :: "small_group list" where
  "ts_small_parse_table_241 = [
     (33185, 45, [(ACTIONS 3, 1, [anon_sym_SLASH_SLASH]), (ACTIONS 5, 1,
       [anon_sym_SLASH_STAR]), (ACTIONS 7, 1, [anon_sym_SLASH_SLASH_SLASH]), (ACTIONS 9, 1,
       [sym__block_comment]), (ACTIONS 11, 1, [sym__documentation_block_comment]), (ACTIONS 17,
       1, [anon_sym_LPAREN]), (ACTIONS 33, 1, [sym_void_type]), (ACTIONS 35, 1, [anon_sym_var]),
       (ACTIONS 45, 1, [anon_sym_Function]), (ACTIONS 67, 1, [anon_sym_late]), (ACTIONS 143, 1,
       [anon_sym_AT]), (ACTIONS 145, 1, [anon_sym_final]), (ACTIONS 153, 1,
       [anon_sym_covariant]), (ACTIONS 159, 1, [anon_sym_this]), (ACTIONS 161, 1,
       [anon_sym_super]), (ACTIONS 446, 1, [anon_sym_required]), (ACTIONS 2262, 1,
       [sym_identifier]), (ACTIONS 2268, 1, [sym_const_builtin]), (STATE 919, 1,
       [sym__required]), (STATE 1077, 1, [sym__metadata]), (STATE 1308, 1,
       [aux_sym__metadata_repeat1]), (STATE 1361, 1, [sym_annotation]), (STATE 1463, 1,
       [sym__function_builtin_identifier]), (STATE 1530, 1, [sym__type_name]), (STATE 1605, 1,
       [aux_sym__function_type_tails]), (STATE 1704, 1, [sym__function_type_tail]), (STATE 1796,
       1, [sym__type_not_function]), (STATE 1798, 1, [sym__covariant]), (STATE 1805, 1,
       [sym_record_type]), (STATE 1848, 1, [sym_function_type]), (STATE 1896, 1,
       [sym__type_not_void_not_function]), (STATE 1915, 1, [sym__late_builtin]), (STATE 1976, 1,
       [sym_inferred_type]), (STATE 1984, 1, [sym_final_builtin]), (STATE 2466, 1,
       [sym__normal_formal_parameter]), (STATE 2468, 1, [sym__declared_identifier]), (STATE 2540,
       1, [sym__final_const_var_or_type]), (STATE 2625, 1, [sym__simple_formal_parameter]),
       (STATE 2628, 1, [sym_formal_parameter]), (STATE 2755, 1, [sym__var_or_type]), (STATE 2756,
       1, [sym__type]), (STATE 3283, 1, [sym_this]), (STATE 3288, 1, [sym_super]), (STATE 825, 2,
       [sym_comment, sym_documentation_comment]), (STATE 2627, 3,
       [sym__function_formal_parameter, sym_super_formal_parameter, sym_constructor_param])])]"

lemma small_run_241: "small_run 825 33185 ts_small_parse_table_241 826 33324"
  by (simp add: small_simps ts_small_parse_table_241_def)

definition ts_small_parse_table_242 :: "small_group list" where
  "ts_small_parse_table_242 = [
     (33324, 45, [(ACTIONS 3, 1, [anon_sym_SLASH_SLASH]), (ACTIONS 5, 1,
       [anon_sym_SLASH_STAR]), (ACTIONS 7, 1, [anon_sym_SLASH_SLASH_SLASH]), (ACTIONS 9, 1,
       [sym__block_comment]), (ACTIONS 11, 1, [sym__documentation_block_comment]), (ACTIONS 17,
       1, [anon_sym_LPAREN]), (ACTIONS 33, 1, [sym_void_type]), (ACTIONS 35, 1, [anon_sym_var]),
       (ACTIONS 45, 1, [anon_sym_Function]), (ACTIONS 67, 1, [anon_sym_late]), (ACTIONS 143, 1,
       [anon_sym_AT]), (ACTIONS 145, 1, [anon_sym_final]), (ACTIONS 153, 1,
       [anon_sym_covariant]), (ACTIONS 159, 1, [anon_sym_this]), (ACTIONS 161, 1,
       [anon_sym_super]), (ACTIONS 2262, 1, [sym_identifier]), (ACTIONS 2268, 1,
       [sym_const_builtin]), (ACTIONS 2580, 1, [anon_sym_RBRACK]), (STATE 1077, 1,
       [sym__metadata]), (STATE 1308, 1, [aux_sym__metadata_repeat1]), (STATE 1361, 1,
       [sym_annotation]), (STATE 1463, 1, [sym__function_builtin_identifier]), (STATE 1530, 1,
       [sym__type_name]), (STATE 1605, 1, [aux_sym__function_type_tails]), (STATE 1704, 1,
       [sym__function_type_tail]), (STATE 1794, 1, [sym__covariant]), (STATE 1796, 1,
       [sym__type_not_function]), (STATE 1805, 1, [sym_record_type]), (STATE 1848, 1,
       [sym_function_type]), (STATE 1896, 1, [sym__type_not_void_not_function]), (STATE 1915, 1,
       [sym__late_builtin]), (STATE 1976, 1, [sym_inferred_type]), (STATE 1984, 1,
       [sym_final_builtin]), (STATE 2464, 1, [sym__simple_formal_parameter]), (STATE 2466, 1,
       [sym__normal_formal_parameter]), (STATE 2468, 1, [sym__declared_identifier]), (STATE 2557,
       1, [sym__final_const_var_or_type]), (STATE 2755, 1, [sym__var_or_type]), (STATE 2756, 1,
       [sym__type]), (STATE 2982, 1, [sym_formal_parameter]), (STATE 3048, 1,
       [sym__default_formal_parameter]), (STATE 3283, 1, [sym_this]), (STATE 3288, 1,
       [sym_super]), (STATE 826, 2, [sym_comment, sym_documentation_comment]), (STATE 2465, 3,
       [sym__function_formal_parameter, sym_super_formal_parameter, sym_constructor_param])])]"

lemma small_run_242: "small_run 826 33324 ts_small_parse_table_242 827 33463"
  by (simp add: small_simps ts_small_parse_table_242_def)

definition ts_small_parse_table_243 :: "small_group list" where
  "ts_small_parse_table_243 = [
     (33463, 10, [(ACTIONS 3, 1, [anon_sym_SLASH_SLASH]), (ACTIONS 5, 1,
       [anon_sym_SLASH_STAR]), (ACTIONS 7, 1, [anon_sym_SLASH_SLASH_SLASH]), (ACTIONS 9, 1,
       [sym__block_comment]), (ACTIONS 11, 1, [sym__documentation_block_comment]), (ACTIONS 2512,
       1, [anon_sym_QMARK]), (STATE 897, 1, [sym_nullable_type]), (STATE 827, 2, [sym_comment,
       sym_documentation_comment]), (ACTIONS 2515, 9, [anon_sym_LT, anon_sym_GT, anon_sym_PIPE,
       anon_sym_AMP, anon_sym_GT_GT, anon_sym_SLASH, anon_sym_BANG, anon_sym_DOT,
       anon_sym_QMARK_DOT]), (ACTIONS 2507, 30, [anon_sym_RBRACE, anon_sym_LBRACK,
       anon_sym_COMMA, anon_sym_RBRACK, anon_sym_COLON, anon_sym_LPAREN, anon_sym_RPAREN,
       anon_sym_QMARK_QMARK, sym_equality_operator, anon_sym_LT_EQ, anon_sym_GT_EQ,
       anon_sym_CARET, anon_sym_LT_LT, anon_sym_GT_GT_GT, sym__additive_operator, anon_sym_STAR,
       anon_sym_PERCENT, anon_sym_TILDE_SLASH, anon_sym_is, anon_sym_as, anon_sym_DOT_DOT,
       anon_sym_QMARK_DOT_DOT, anon_sym_SEMI, anon_sym_EQ_GT, anon_sym_when, anon_sym_case,
       anon_sym_else, anon_sym_Function, anon_sym_AMP_AMP, anon_sym_PIPE_PIPE])]),
     (33532, 10, [(ACTIONS 3, 1, [anon_sym_SLASH_SLASH]), (ACTIONS 5, 1,
       [anon_sym_SLASH_STAR]), (ACTIONS 7, 1, [anon_sym_SLASH_SLASH_SLASH]), (ACTIONS 9, 1,
       [sym__block_comment]), (ACTIONS 11, 1, [sym__documentation_block_comment]), (ACTIONS 2582,
       1, [anon_sym_DOT]), (STATE 842, 1, [sym__type_dot_identifier]), (STATE 828, 2,
       [sym_comment, sym_documentation_comment]), (ACTIONS 1320, 9, [anon_sym_QMARK, anon_sym_LT,
       anon_sym_GT, anon_sym_PIPE, anon_sym_AMP, anon_sym_GT_GT, anon_sym_SLASH, anon_sym_BANG,
       anon_sym_QMARK_DOT]), (ACTIONS 2015, 30, [anon_sym_RBRACE, anon_sym_LBRACK,
       anon_sym_COMMA, anon_sym_RBRACK, anon_sym_COLON, anon_sym_LPAREN, anon_sym_RPAREN,
       anon_sym_QMARK_QMARK, sym_equality_operator, anon_sym_LT_EQ, anon_sym_GT_EQ,
       anon_sym_CARET, anon_sym_LT_LT, anon_sym_GT_GT_GT, sym__additive_operator, anon_sym_STAR,
       anon_sym_PERCENT, anon_sym_TILDE_SLASH, anon_sym_is, anon_sym_as, anon_sym_DOT_DOT,
       anon_sym_QMARK_DOT_DOT, anon_sym_SEMI, anon_sym_EQ_GT, anon_sym_when, anon_sym_case,
       anon_sym_else, anon_sym_Function, anon_sym_AMP_AMP, anon_sym_PIPE_PIPE])])]"

lemma small_run_243: "small_run 827 33463 ts_small_parse_table_243 829 33601"
  by (simp add: small_simps ts_small_parse_table_243_def)

definition ts_small_parse_table_244 :: "small_group list" where
  "ts_small_parse_table_244 = [
     (33601, 10, [(ACTIONS 3, 1, [anon_sym_SLASH_SLASH]), (ACTIONS 5, 1,
       [anon_sym_SLASH_STAR]), (ACTIONS 7, 1, [anon_sym_SLASH_SLASH_SLASH]), (ACTIONS 9, 1,
       [sym__block_comment]), (ACTIONS 11, 1, [sym__documentation_block_comment]), (STATE 914, 1,
       [sym_cascade_section]), (ACTIONS 2589, 2, [anon_sym_DOT_DOT, anon_sym_QMARK_DOT_DOT]),
       (STATE 829, 3, [sym_comment, sym_documentation_comment, aux_sym__expression_repeat1]),
       (ACTIONS 2587, 10, [anon_sym_QMARK, anon_sym_LT, anon_sym_GT, anon_sym_PIPE, anon_sym_AMP,
       anon_sym_GT_GT, anon_sym_SLASH, anon_sym_BANG, anon_sym_DOT, anon_sym_QMARK_DOT]),
       (ACTIONS 2585, 27, [anon_sym_RBRACE, anon_sym_LBRACK, anon_sym_COMMA, anon_sym_RBRACK,
       anon_sym_COLON, anon_sym_LPAREN, anon_sym_RPAREN, anon_sym_QMARK_QMARK,
       sym_equality_operator, anon_sym_LT_EQ, anon_sym_GT_EQ, anon_sym_CARET, anon_sym_LT_LT,
       anon_sym_GT_GT_GT, sym__additive_operator, anon_sym_STAR, anon_sym_PERCENT,
       anon_sym_TILDE_SLASH, anon_sym_is, anon_sym_as, anon_sym_SEMI, anon_sym_EQ_GT,
       anon_sym_when, anon_sym_case, anon_sym_else, anon_sym_AMP_AMP, anon_sym_PIPE_PIPE])]),
     (33670, 27, [(ACTIONS 3, 1, [anon_sym_SLASH_SLASH]), (ACTIONS 5, 1,
       [anon_sym_SLASH_STAR]), (ACTIONS 7, 1, [anon_sym_SLASH_SLASH_SLASH]), (ACTIONS 9, 1,
       [sym__block_comment]), (ACTIONS 11, 1, [sym__documentation_block_comment]), (ACTIONS 1067,
       1, [anon_sym_EQ]), (ACTIONS 1075, 1, [anon_sym_async]), (ACTIONS 2419, 1,
       [anon_sym_LBRACK]), (ACTIONS 2421, 1, [anon_sym_LPAREN]), (ACTIONS 2423, 1,
       [anon_sym_QMARK]), (ACTIONS 2425, 1, [anon_sym_LT]), (ACTIONS 2427, 1, [anon_sym_DOT]),
       (ACTIONS 2429, 1, [anon_sym_QMARK_DOT]), (STATE 284, 1, [sym__assignment_operator]),
       (STATE 823, 1, [aux_sym_cascade_section_repeat1]), (STATE 997, 1,
       [sym__assignable_selector]), (STATE 1088, 1, [sym_argument_part]), (STATE 1109, 1,
       [sym_arguments]), (STATE 1141, 1, [sym__cascade_subsection]), (STATE 1145, 1,
       [sym_index_selector]), (STATE 1199, 1, [aux_sym_cascade_section_repeat2]), (STATE 1970, 1,
       [sym__cascade_assignment_section]), (STATE 3052, 1, [sym_type_arguments]), (STATE 830, 2,
       [sym_comment, sym_documentation_comment]), (STATE 1138, 2,
       [sym_unconditional_assignable_selector, sym_conditional_assignable_selector]), (ACTIONS
       1073, 8, [anon_sym_LBRACE, anon_sym_COMMA, anon_sym_DOT_DOT, anon_sym_QMARK_DOT_DOT,
       anon_sym_SEMI, anon_sym_EQ_GT, anon_sym_async_STAR, anon_sym_sync_STAR]), (ACTIONS 1069,
       13, [anon_sym_PLUS_EQ, anon_sym_DASH_EQ, anon_sym_STAR_EQ, anon_sym_SLASH_EQ,
       anon_sym_PERCENT_EQ, anon_sym_TILDE_SLASH_EQ, anon_sym_LT_LT_EQ, anon_sym_GT_GT_EQ,
       anon_sym_GT_GT_GT_EQ, anon_sym_AMP_EQ, anon_sym_CARET_EQ, anon_sym_PIPE_EQ,
       anon_sym_QMARK_QMARK_EQ])])]"

lemma small_run_244: "small_run 829 33601 ts_small_parse_table_244 831 33773"
  by (simp add: small_simps ts_small_parse_table_244_def)

definition ts_small_parse_table_245 :: "small_group list" where
  "ts_small_parse_table_245 = [
     (33773, 45, [(ACTIONS 3, 1, [anon_sym_SLASH_SLASH]), (ACTIONS 5, 1,
       [anon_sym_SLASH_STAR]), (ACTIONS 7, 1, [anon_sym_SLASH_SLASH_SLASH]), (ACTIONS 9, 1,
       [sym__block_comment]), (ACTIONS 11, 1, [sym__documentation_block_comment]), (ACTIONS 17,
       1, [anon_sym_LPAREN]), (ACTIONS 33, 1, [sym_void_type]), (ACTIONS 35, 1, [anon_sym_var]),
       (ACTIONS 45, 1, [anon_sym_Function]), (ACTIONS 67, 1, [anon_sym_late]), (ACTIONS 143, 1,
       [anon_sym_AT]), (ACTIONS 145, 1, [anon_sym_final]), (ACTIONS 153, 1,
       [anon_sym_covariant]), (ACTIONS 159, 1, [anon_sym_this]), (ACTIONS 161, 1,
       [anon_sym_super]), (ACTIONS 2262, 1, [sym_identifier]), (ACTIONS 2268, 1,
       [sym_const_builtin]), (ACTIONS 2592, 1, [anon_sym_RBRACK]), (STATE 1077, 1,
       [sym__metadata]), (STATE 1308, 1, [aux_sym__metadata_repeat1]), (STATE 1361, 1,
       [sym_annotation]), (STATE 1463, 1, [sym__function_builtin_identifier]), (STATE 1530, 1,
       [sym__type_name]), (STATE 1605, 1, [aux_sym__function_type_tails]), (STATE 1704, 1,
       [sym__function_type_tail]), (STATE 1794, 1, [sym__covariant]), (STATE 1796, 1,
       [sym__type_not_function]), (STATE 1805, 1, [sym_record_type]), (STATE 1848, 1,
       [sym_function_type]), (STATE 1896, 1, [sym__type_not_void_not_function]), (STATE 1915, 1,
       [sym__late_builtin]), (STATE 1976, 1, [sym_inferred_type]), (STATE 1984, 1,
       [sym_final_builtin]), (STATE 2464, 1, [sym__simple_formal_parameter]), (STATE 2466, 1,
       [sym__normal_formal_parameter]), (STATE 2468, 1, [sym__declared_identifier]), (STATE 2557,
       1, [sym__final_const_var_or_type]), (STATE 2755, 1, [sym__var_or_type]), (STATE 2756, 1,
       [sym__type]), (STATE 2982, 1, [sym_formal_parameter]), (STATE 3048, 1,
       [sym__default_formal_parameter]), (STATE 3283, 1, [sym_this]), (STATE 3288, 1,
       [sym_super]), (STATE 831, 2, [sym_comment, sym_documentation_comment]), (STATE 2465, 3,
       [sym__function_formal_parameter, sym_super_formal_parameter, sym_constructor_param])])]"

lemma small_run_245: "small_run 831 33773 ts_small_parse_table_245 832 33912"
  by (simp add: small_simps ts_small_parse_table_245_def)

definition ts_small_parse_table_246 :: "small_group list" where
  "ts_small_parse_table_246 = [
     (33912, 12, [(ACTIONS 3, 1, [anon_sym_SLASH_SLASH]), (ACTIONS 5, 1,
       [anon_sym_SLASH_STAR]), (ACTIONS 7, 1, [anon_sym_SLASH_SLASH_SLASH]), (ACTIONS 9, 1,
       [sym__block_comment]), (ACTIONS 11, 1, [sym__documentation_block_comment]), (ACTIONS 1330,
       1, [sym_increment_operator]), (ACTIONS 1334, 1, [anon_sym_LT]), (ACTIONS 1341, 1,
       [anon_sym_DOT]), (STATE 1612, 1, [sym__type_dot_identifier]), (STATE 832, 2, [sym_comment,
       sym_documentation_comment]), (ACTIONS 1332, 9, [anon_sym_QMARK, anon_sym_GT,
       anon_sym_PIPE, anon_sym_AMP, anon_sym_GT_GT, sym__additive_operator, anon_sym_SLASH,
       anon_sym_BANG, anon_sym_QMARK_DOT]), (ACTIONS 1322, 28, [anon_sym_RBRACE, anon_sym_LBRACK,
       anon_sym_COMMA, anon_sym_RBRACK, anon_sym_COLON, anon_sym_LPAREN, anon_sym_RPAREN,
       anon_sym_QMARK_QMARK, sym_equality_operator, anon_sym_LT_EQ, anon_sym_GT_EQ,
       anon_sym_CARET, anon_sym_LT_LT, anon_sym_GT_GT_GT, anon_sym_STAR, anon_sym_PERCENT,
       anon_sym_TILDE_SLASH, anon_sym_is, anon_sym_as, anon_sym_DOT_DOT, anon_sym_QMARK_DOT_DOT,
       anon_sym_SEMI, anon_sym_EQ_GT, anon_sym_when, anon_sym_case, anon_sym_else,
       anon_sym_AMP_AMP, anon_sym_PIPE_PIPE])]),
     (33985, 10, [(ACTIONS 3, 1, [anon_sym_SLASH_SLASH]), (ACTIONS 5, 1,
       [anon_sym_SLASH_STAR]), (ACTIONS 7, 1, [anon_sym_SLASH_SLASH_SLASH]), (ACTIONS 9, 1,
       [sym__block_comment]), (ACTIONS 11, 1, [sym__documentation_block_comment]), (STATE 368, 1,
       [sym_additive_operator]), (STATE 824, 1, [aux_sym_additive_expression_repeat1]), (STATE
       833, 2, [sym_comment, sym_documentation_comment]), (ACTIONS 2596, 10, [anon_sym_QMARK,
       anon_sym_LT, anon_sym_GT, anon_sym_PIPE, anon_sym_AMP, anon_sym_GT_GT, anon_sym_SLASH,
       anon_sym_BANG, anon_sym_DOT, anon_sym_QMARK_DOT]), (ACTIONS 2594, 29, [anon_sym_RBRACE,
       anon_sym_LBRACK, anon_sym_COMMA, anon_sym_RBRACK, anon_sym_COLON, anon_sym_LPAREN,
       anon_sym_RPAREN, anon_sym_QMARK_QMARK, sym_equality_operator, anon_sym_LT_EQ,
       anon_sym_GT_EQ, anon_sym_CARET, anon_sym_LT_LT, anon_sym_GT_GT_GT, sym__additive_operator,
       anon_sym_STAR, anon_sym_PERCENT, anon_sym_TILDE_SLASH, anon_sym_is, anon_sym_as,
       anon_sym_DOT_DOT, anon_sym_QMARK_DOT_DOT, anon_sym_SEMI, anon_sym_EQ_GT, anon_sym_when,
       anon_sym_case, anon_sym_else, anon_sym_AMP_AMP, anon_sym_PIPE_PIPE])])]"

lemma small_run_246: "small_run 832 33912 ts_small_parse_table_246 834 34054"
  by (simp add: small_simps ts_small_parse_table_246_def)

definition ts_small_parse_table_247 :: "small_group list" where
  "ts_small_parse_table_247 = [
     (34054, 10, [(ACTIONS 3, 1, [anon_sym_SLASH_SLASH]), (ACTIONS 5, 1,
       [anon_sym_SLASH_STAR]), (ACTIONS 7, 1, [anon_sym_SLASH_SLASH_SLASH]), (ACTIONS 9, 1,
       [sym__block_comment]), (ACTIONS 11, 1, [sym__documentation_block_comment]), (STATE 365, 1,
       [sym_logical_or_operator]), (STATE 820, 1, [aux_sym_logical_or_expression_repeat1]),
       (STATE 834, 2, [sym_comment, sym_documentation_comment]), (ACTIONS 2600, 10,
       [anon_sym_QMARK, anon_sym_LT, anon_sym_GT, anon_sym_PIPE, anon_sym_AMP, anon_sym_GT_GT,
       anon_sym_SLASH, anon_sym_BANG, anon_sym_DOT, anon_sym_QMARK_DOT]), (ACTIONS 2598, 29,
       [anon_sym_RBRACE, anon_sym_LBRACK, anon_sym_COMMA, anon_sym_RBRACK, anon_sym_COLON,
       anon_sym_LPAREN, anon_sym_RPAREN, anon_sym_QMARK_QMARK, sym_equality_operator,
       anon_sym_LT_EQ, anon_sym_GT_EQ, anon_sym_CARET, anon_sym_LT_LT, anon_sym_GT_GT_GT,
       sym__additive_operator, anon_sym_STAR, anon_sym_PERCENT, anon_sym_TILDE_SLASH,
       anon_sym_is, anon_sym_as, anon_sym_DOT_DOT, anon_sym_QMARK_DOT_DOT, anon_sym_SEMI,
       anon_sym_EQ_GT, anon_sym_when, anon_sym_case, anon_sym_else, anon_sym_AMP_AMP,
       anon_sym_PIPE_PIPE])]),
     (34123, 10, [(ACTIONS 3, 1, [anon_sym_SLASH_SLASH]), (ACTIONS 5, 1,
       [anon_sym_SLASH_STAR]), (ACTIONS 7, 1, [anon_sym_SLASH_SLASH_SLASH]), (ACTIONS 9, 1,
       [sym__block_comment]), (ACTIONS 11, 1, [sym__documentation_block_comment]), (STATE 366, 1,
       [sym_logical_and_operator]), (STATE 822, 1, [aux_sym_logical_and_expression_repeat1]),
       (STATE 835, 2, [sym_comment, sym_documentation_comment]), (ACTIONS 2604, 10,
       [anon_sym_QMARK, anon_sym_LT, anon_sym_GT, anon_sym_PIPE, anon_sym_AMP, anon_sym_GT_GT,
       anon_sym_SLASH, anon_sym_BANG, anon_sym_DOT, anon_sym_QMARK_DOT]), (ACTIONS 2602, 29,
       [anon_sym_RBRACE, anon_sym_LBRACK, anon_sym_COMMA, anon_sym_RBRACK, anon_sym_COLON,
       anon_sym_LPAREN, anon_sym_RPAREN, anon_sym_QMARK_QMARK, sym_equality_operator,
       anon_sym_LT_EQ, anon_sym_GT_EQ, anon_sym_CARET, anon_sym_LT_LT, anon_sym_GT_GT_GT,
       sym__additive_operator, anon_sym_STAR, anon_sym_PERCENT, anon_sym_TILDE_SLASH,
       anon_sym_is, anon_sym_as, anon_sym_DOT_DOT, anon_sym_QMARK_DOT_DOT, anon_sym_SEMI,
       anon_sym_EQ_GT, anon_sym_when, anon_sym_case, anon_sym_else, anon_sym_AMP_AMP,
       anon_sym_PIPE_PIPE])])]"

lemma small_run_247: "small_run 834 34054 ts_small_parse_table_247 836 34192"
  by (simp add: small_simps ts_small_parse_table_247_def)

definition ts_small_parse_table_248 :: "small_group list" where
  "ts_small_parse_table_248 = [
     (34192, 8, [(ACTIONS 3, 1, [anon_sym_SLASH_SLASH]), (ACTIONS 5, 1, [anon_sym_SLASH_STAR]),
       (ACTIONS 7, 1, [anon_sym_SLASH_SLASH_SLASH]), (ACTIONS 9, 1, [sym__block_comment]),
       (ACTIONS 11, 1, [sym__documentation_block_comment]), (STATE 836, 2, [sym_comment,
       sym_documentation_comment]), (ACTIONS 1645, 11, [anon_sym_QMARK, anon_sym_LT, anon_sym_GT,
       anon_sym_PIPE, anon_sym_AMP, anon_sym_GT_GT, sym__additive_operator, anon_sym_SLASH,
       anon_sym_BANG, anon_sym_DOT, anon_sym_QMARK_DOT]), (ACTIONS 1643, 29, [anon_sym_RBRACE,
       anon_sym_LBRACK, anon_sym_COMMA, anon_sym_RBRACK, anon_sym_COLON, anon_sym_LPAREN,
       anon_sym_RPAREN, anon_sym_QMARK_QMARK, sym_equality_operator, anon_sym_LT_EQ,
       anon_sym_GT_EQ, anon_sym_CARET, anon_sym_LT_LT, anon_sym_GT_GT_GT, anon_sym_STAR,
       anon_sym_PERCENT, anon_sym_TILDE_SLASH, sym_increment_operator, anon_sym_is, anon_sym_as,
       anon_sym_DOT_DOT, anon_sym_QMARK_DOT_DOT, anon_sym_SEMI, anon_sym_EQ_GT, anon_sym_when,
       anon_sym_case, anon_sym_else, anon_sym_AMP_AMP, anon_sym_PIPE_PIPE])]),
     (34256, 44, [(ACTIONS 3, 1, [anon_sym_SLASH_SLASH]), (ACTIONS 5, 1,
       [anon_sym_SLASH_STAR]), (ACTIONS 7, 1, [anon_sym_SLASH_SLASH_SLASH]), (ACTIONS 9, 1,
       [sym__block_comment]), (ACTIONS 11, 1, [sym__documentation_block_comment]), (ACTIONS 17,
       1, [anon_sym_LPAREN]), (ACTIONS 33, 1, [sym_void_type]), (ACTIONS 35, 1, [anon_sym_var]),
       (ACTIONS 45, 1, [anon_sym_Function]), (ACTIONS 67, 1, [anon_sym_late]), (ACTIONS 143, 1,
       [anon_sym_AT]), (ACTIONS 145, 1, [anon_sym_final]), (ACTIONS 153, 1,
       [anon_sym_covariant]), (ACTIONS 159, 1, [anon_sym_this]), (ACTIONS 161, 1,
       [anon_sym_super]), (ACTIONS 2262, 1, [sym_identifier]), (ACTIONS 2268, 1,
       [sym_const_builtin]), (STATE 1077, 1, [sym__metadata]), (STATE 1308, 1,
       [aux_sym__metadata_repeat1]), (STATE 1361, 1, [sym_annotation]), (STATE 1463, 1,
       [sym__function_builtin_identifier]), (STATE 1530, 1, [sym__type_name]), (STATE 1605, 1,
       [aux_sym__function_type_tails]), (STATE 1704, 1, [sym__function_type_tail]), (STATE 1794,
       1, [sym__covariant]), (STATE 1796, 1, [sym__type_not_function]), (STATE 1805, 1,
       [sym_record_type]), (STATE 1848, 1, [sym_function_type]), (STATE 1896, 1,
       [sym__type_not_void_not_function]), (STATE 1915, 1, [sym__late_builtin]), (STATE 1976, 1,
       [sym_inferred_type]), (STATE 1984, 1, [sym_final_builtin]), (STATE 2464, 1,
       [sym__simple_formal_parameter]), (STATE 2466, 1, [sym__normal_formal_parameter]), (STATE
       2468, 1, [sym__declared_identifier]), (STATE 2557, 1, [sym__final_const_var_or_type]),
       (STATE 2755, 1, [sym__var_or_type]), (STATE 2756, 1, [sym__type]), (STATE 2982, 1,
       [sym_formal_parameter]), (STATE 3048, 1, [sym__default_formal_parameter]), (STATE 3283, 1,
       [sym_this]), (STATE 3288, 1, [sym_super]), (STATE 837, 2, [sym_comment,
       sym_documentation_comment]), (STATE 2465, 3, [sym__function_formal_parameter,
       sym_super_formal_parameter, sym_constructor_param])])]"

lemma small_run_248: "small_run 836 34192 ts_small_parse_table_248 838 34392"
  by (simp add: small_simps ts_small_parse_table_248_def)

definition ts_small_parse_table_249 :: "small_group list" where
  "ts_small_parse_table_249 = [
     (34392, 8, [(ACTIONS 3, 1, [anon_sym_SLASH_SLASH]), (ACTIONS 5, 1, [anon_sym_SLASH_STAR]),
       (ACTIONS 7, 1, [anon_sym_SLASH_SLASH_SLASH]), (ACTIONS 9, 1, [sym__block_comment]),
       (ACTIONS 11, 1, [sym__documentation_block_comment]), (STATE 838, 2, [sym_comment,
       sym_documentation_comment]), (ACTIONS 2608, 10, [anon_sym_QMARK, anon_sym_LT, anon_sym_GT,
       anon_sym_PIPE, anon_sym_AMP, anon_sym_GT_GT, anon_sym_SLASH, anon_sym_BANG, anon_sym_DOT,
       anon_sym_QMARK_DOT]), (ACTIONS 2606, 30, [anon_sym_RBRACE, anon_sym_LBRACK,
       anon_sym_COMMA, anon_sym_RBRACK, anon_sym_COLON, anon_sym_LPAREN, anon_sym_RPAREN,
       anon_sym_QMARK_QMARK, sym_equality_operator, anon_sym_LT_EQ, anon_sym_GT_EQ,
       anon_sym_CARET, anon_sym_LT_LT, anon_sym_GT_GT_GT, sym__additive_operator, anon_sym_STAR,
       anon_sym_PERCENT, anon_sym_TILDE_SLASH, anon_sym_is, anon_sym_as, anon_sym_DOT_DOT,
       anon_sym_QMARK_DOT_DOT, anon_sym_SEMI, anon_sym_EQ_GT, anon_sym_when, anon_sym_case,
       anon_sym_else, anon_sym_Function, anon_sym_AMP_AMP, anon_sym_PIPE_PIPE])]),
     (34456, 9, [(ACTIONS 3, 1, [anon_sym_SLASH_SLASH]), (ACTIONS 5, 1, [anon_sym_SLASH_STAR]),
       (ACTIONS 7, 1, [anon_sym_SLASH_SLASH_SLASH]), (ACTIONS 9, 1, [sym__block_comment]),
       (ACTIONS 11, 1, [sym__documentation_block_comment]), (STATE 887, 1,
       [aux_sym_bitwise_or_expression_repeat1]), (STATE 839, 2, [sym_comment,
       sym_documentation_comment]), (ACTIONS 2612, 10, [anon_sym_QMARK, anon_sym_LT, anon_sym_GT,
       anon_sym_PIPE, anon_sym_AMP, anon_sym_GT_GT, anon_sym_SLASH, anon_sym_BANG, anon_sym_DOT,
       anon_sym_QMARK_DOT]), (ACTIONS 2610, 29, [anon_sym_RBRACE, anon_sym_LBRACK,
       anon_sym_COMMA, anon_sym_RBRACK, anon_sym_COLON, anon_sym_LPAREN, anon_sym_RPAREN,
       anon_sym_QMARK_QMARK, sym_equality_operator, anon_sym_LT_EQ, anon_sym_GT_EQ,
       anon_sym_CARET, anon_sym_LT_LT, anon_sym_GT_GT_GT, sym__additive_operator, anon_sym_STAR,
       anon_sym_PERCENT, anon_sym_TILDE_SLASH, anon_sym_is, anon_sym_as, anon_sym_DOT_DOT,
       anon_sym_QMARK_DOT_DOT, anon_sym_SEMI, anon_sym_EQ_GT, anon_sym_when, anon_sym_case,
       anon_sym_else, anon_sym_AMP_AMP, anon_sym_PIPE_PIPE])])]"

lemma small_run_249: "small_run 838 34392 ts_small_parse_table_249 840 34522"
  by (simp add: small_simps ts_small_parse_table_249_def)

definition ts_small_parse_table_250 :: "small_group list" where
  "ts_small_parse_table_250 = [
     (34522, 9, [(ACTIONS 3, 1, [anon_sym_SLASH_SLASH]), (ACTIONS 5, 1, [anon_sym_SLASH_STAR]),
       (ACTIONS 7, 1, [anon_sym_SLASH_SLASH_SLASH]), (ACTIONS 9, 1, [sym__block_comment]),
       (ACTIONS 11, 1, [sym__documentation_block_comment]), (STATE 886, 1,
       [aux_sym_bitwise_xor_expression_repeat1]), (STATE 840, 2, [sym_comment,
       sym_documentation_comment]), (ACTIONS 2616, 10, [anon_sym_QMARK, anon_sym_LT, anon_sym_GT,
       anon_sym_PIPE, anon_sym_AMP, anon_sym_GT_GT, anon_sym_SLASH, anon_sym_BANG, anon_sym_DOT,
       anon_sym_QMARK_DOT]), (ACTIONS 2614, 29, [anon_sym_RBRACE, anon_sym_LBRACK,
       anon_sym_COMMA, anon_sym_RBRACK, anon_sym_COLON, anon_sym_LPAREN, anon_sym_RPAREN,
       anon_sym_QMARK_QMARK, sym_equality_operator, anon_sym_LT_EQ, anon_sym_GT_EQ,
       anon_sym_CARET, anon_sym_LT_LT, anon_sym_GT_GT_GT, sym__additive_operator, anon_sym_STAR,
       anon_sym_PERCENT, anon_sym_TILDE_SLASH, anon_sym_is, anon_sym_as, anon_sym_DOT_DOT,
       anon_sym_QMARK_DOT_DOT, anon_sym_SEMI, anon_sym_EQ_GT, anon_sym_when, anon_sym_case,
       anon_sym_else, anon_sym_AMP_AMP, anon_sym_PIPE_PIPE])]),
     (34588, 9, [(ACTIONS 3, 1, [anon_sym_SLASH_SLASH]), (ACTIONS 5, 1, [anon_sym_SLASH_STAR]),
       (ACTIONS 7, 1, [anon_sym_SLASH_SLASH_SLASH]), (ACTIONS 9, 1, [sym__block_comment]),
       (ACTIONS 11, 1, [sym__documentation_block_comment]), (STATE 885, 1,
       [aux_sym_bitwise_and_expression_repeat1]), (STATE 841, 2, [sym_comment,
       sym_documentation_comment]), (ACTIONS 2620, 10, [anon_sym_QMARK, anon_sym_LT, anon_sym_GT,
       anon_sym_PIPE, anon_sym_AMP, anon_sym_GT_GT, anon_sym_SLASH, anon_sym_BANG, anon_sym_DOT,
       anon_sym_QMARK_DOT]), (ACTIONS 2618, 29, [anon_sym_RBRACE, anon_sym_LBRACK,
       anon_sym_COMMA, anon_sym_RBRACK, anon_sym_COLON, anon_sym_LPAREN, anon_sym_RPAREN,
       anon_sym_QMARK_QMARK, sym_equality_operator, anon_sym_LT_EQ, anon_sym_GT_EQ,
       anon_sym_CARET, anon_sym_LT_LT, anon_sym_GT_GT_GT, sym__additive_operator, anon_sym_STAR,
       anon_sym_PERCENT, anon_sym_TILDE_SLASH, anon_sym_is, anon_sym_as, anon_sym_DOT_DOT,
       anon_sym_QMARK_DOT_DOT, anon_sym_SEMI, anon_sym_EQ_GT, anon_sym_when, anon_sym_case,
       anon_sym_else, anon_sym_AMP_AMP, anon_sym_PIPE_PIPE])])]"

lemma small_run_250: "small_run 840 34522 ts_small_parse_table_250 842 34654"
  by (simp add: small_simps ts_small_parse_table_250_def)

definition ts_small_parse_table_251 :: "small_group list" where
  "ts_small_parse_table_251 = [
     (34654, 8, [(ACTIONS 3, 1, [anon_sym_SLASH_SLASH]), (ACTIONS 5, 1, [anon_sym_SLASH_STAR]),
       (ACTIONS 7, 1, [anon_sym_SLASH_SLASH_SLASH]), (ACTIONS 9, 1, [sym__block_comment]),
       (ACTIONS 11, 1, [sym__documentation_block_comment]), (STATE 842, 2, [sym_comment,
       sym_documentation_comment]), (ACTIONS 2624, 10, [anon_sym_QMARK, anon_sym_LT, anon_sym_GT,
       anon_sym_PIPE, anon_sym_AMP, anon_sym_GT_GT, anon_sym_SLASH, anon_sym_BANG, anon_sym_DOT,
       anon_sym_QMARK_DOT]), (ACTIONS 2622, 30, [anon_sym_RBRACE, anon_sym_LBRACK,
       anon_sym_COMMA, anon_sym_RBRACK, anon_sym_COLON, anon_sym_LPAREN, anon_sym_RPAREN,
       anon_sym_QMARK_QMARK, sym_equality_operator, anon_sym_LT_EQ, anon_sym_GT_EQ,
       anon_sym_CARET, anon_sym_LT_LT, anon_sym_GT_GT_GT, sym__additive_operator, anon_sym_STAR,
       anon_sym_PERCENT, anon_sym_TILDE_SLASH, anon_sym_is, anon_sym_as, anon_sym_DOT_DOT,
       anon_sym_QMARK_DOT_DOT, anon_sym_SEMI, anon_sym_EQ_GT, anon_sym_when, anon_sym_case,
       anon_sym_else, anon_sym_Function, anon_sym_AMP_AMP, anon_sym_PIPE_PIPE])]),
     (34718, 14, [(ACTIONS 3, 1, [anon_sym_SLASH_SLASH]), (ACTIONS 5, 1,
       [anon_sym_SLASH_STAR]), (ACTIONS 7, 1, [anon_sym_SLASH_SLASH_SLASH]), (ACTIONS 9, 1,
       [sym__block_comment]), (ACTIONS 11, 1, [sym__documentation_block_comment]), (ACTIONS 2626,
       1, [anon_sym_LPAREN]), (ACTIONS 2630, 1, [anon_sym_QMARK]), (ACTIONS 2634, 1,
       [anon_sym_LT]), (STATE 933, 1, [sym_nullable_type]), (STATE 936, 1,
       [sym_type_parameters]), (STATE 1014, 1, [sym_parameter_type_list]), (STATE 843, 2,
       [sym_comment, sym_documentation_comment]), (ACTIONS 2395, 10, [anon_sym_GT, anon_sym_PIPE,
       anon_sym_AMP, anon_sym_GT_GT, anon_sym_SLASH, anon_sym_BANG, anon_sym_as, anon_sym_DOT,
       anon_sym_QMARK_DOT, anon_sym_async]), (ACTIONS 2380, 24, [anon_sym_LBRACE,
       anon_sym_LBRACK, anon_sym_COMMA, anon_sym_QMARK_QMARK, sym_equality_operator,
       anon_sym_LT_EQ, anon_sym_GT_EQ, anon_sym_CARET, anon_sym_LT_LT, anon_sym_GT_GT_GT,
       sym__additive_operator, anon_sym_STAR, anon_sym_PERCENT, anon_sym_TILDE_SLASH,
       anon_sym_is, anon_sym_DOT_DOT, anon_sym_QMARK_DOT_DOT, anon_sym_SEMI, anon_sym_EQ_GT,
       anon_sym_async_STAR, anon_sym_sync_STAR, anon_sym_Function, anon_sym_AMP_AMP,
       anon_sym_PIPE_PIPE])])]"

lemma small_run_251: "small_run 842 34654 ts_small_parse_table_251 844 34794"
  by (simp add: small_simps ts_small_parse_table_251_def)

definition ts_small_parse_table_252 :: "small_group list" where
  "ts_small_parse_table_252 = [
     (34794, 8, [(ACTIONS 3, 1, [anon_sym_SLASH_SLASH]), (ACTIONS 5, 1, [anon_sym_SLASH_STAR]),
       (ACTIONS 7, 1, [anon_sym_SLASH_SLASH_SLASH]), (ACTIONS 9, 1, [sym__block_comment]),
       (ACTIONS 11, 1, [sym__documentation_block_comment]), (STATE 844, 2, [sym_comment,
       sym_documentation_comment]), (ACTIONS 2640, 10, [anon_sym_QMARK, anon_sym_LT, anon_sym_GT,
       anon_sym_PIPE, anon_sym_AMP, anon_sym_GT_GT, anon_sym_SLASH, anon_sym_BANG, anon_sym_DOT,
       anon_sym_QMARK_DOT]), (ACTIONS 2638, 30, [anon_sym_RBRACE, anon_sym_LBRACK,
       anon_sym_COMMA, anon_sym_RBRACK, anon_sym_COLON, anon_sym_LPAREN, anon_sym_RPAREN,
       anon_sym_QMARK_QMARK, sym_equality_operator, anon_sym_LT_EQ, anon_sym_GT_EQ,
       anon_sym_CARET, anon_sym_LT_LT, anon_sym_GT_GT_GT, sym__additive_operator, anon_sym_STAR,
       anon_sym_PERCENT, anon_sym_TILDE_SLASH, anon_sym_is, anon_sym_as, anon_sym_DOT_DOT,
       anon_sym_QMARK_DOT_DOT, anon_sym_SEMI, anon_sym_EQ_GT, anon_sym_when, anon_sym_case,
       anon_sym_else, anon_sym_Function, anon_sym_AMP_AMP, anon_sym_PIPE_PIPE])]),
     (34858, 8, [(ACTIONS 3, 1, [anon_sym_SLASH_SLASH]), (ACTIONS 5, 1, [anon_sym_SLASH_STAR]),
       (ACTIONS 7, 1, [anon_sym_SLASH_SLASH_SLASH]), (ACTIONS 9, 1, [sym__block_comment]),
       (ACTIONS 11, 1, [sym__documentation_block_comment]), (STATE 845, 2, [sym_comment,
       sym_documentation_comment]), (ACTIONS 2644, 10, [anon_sym_QMARK, anon_sym_LT, anon_sym_GT,
       anon_sym_PIPE, anon_sym_AMP, anon_sym_GT_GT, anon_sym_SLASH, anon_sym_BANG, anon_sym_DOT,
       anon_sym_QMARK_DOT]), (ACTIONS 2642, 30, [anon_sym_RBRACE, anon_sym_LBRACK,
       anon_sym_COMMA, anon_sym_RBRACK, anon_sym_COLON, anon_sym_LPAREN, anon_sym_RPAREN,
       anon_sym_QMARK_QMARK, sym_equality_operator, anon_sym_LT_EQ, anon_sym_GT_EQ,
       anon_sym_CARET, anon_sym_LT_LT, anon_sym_GT_GT_GT, sym__additive_operator, anon_sym_STAR,
       anon_sym_PERCENT, anon_sym_TILDE_SLASH, anon_sym_is, anon_sym_as, anon_sym_DOT_DOT,
       anon_sym_QMARK_DOT_DOT, anon_sym_SEMI, anon_sym_EQ_GT, anon_sym_when, anon_sym_case,
       anon_sym_else, anon_sym_Function, anon_sym_AMP_AMP, anon_sym_PIPE_PIPE])])]"

lemma small_run_252: "small_run 844 34794 ts_small_parse_table_252 846 34922"
  by (simp add: small_simps ts_small_parse_table_252_def)

definition ts_small_parse_table_253 :: "small_group list" where
  "ts_small_parse_table_253 = [
     (34922, 11, [(ACTIONS 3, 1, [anon_sym_SLASH_SLASH]), (ACTIONS 5, 1,
       [anon_sym_SLASH_STAR]), (ACTIONS 7, 1, [anon_sym_SLASH_SLASH_SLASH]), (ACTIONS 9, 1,
       [sym__block_comment]), (ACTIONS 11, 1, [sym__documentation_block_comment]), (ACTIONS 2646,
       1, [anon_sym_Function]), (STATE 851, 1, [sym__function_builtin_identifier]), (STATE 1071,
       1, [sym__function_type_tail]), (STATE 846, 3, [aux_sym__function_type_tails, sym_comment,
       sym_documentation_comment]), (ACTIONS 2444, 12, [anon_sym_QMARK, anon_sym_LT, anon_sym_GT,
       anon_sym_PIPE, anon_sym_AMP, anon_sym_GT_GT, anon_sym_SLASH, anon_sym_BANG, anon_sym_as,
       anon_sym_DOT, anon_sym_QMARK_DOT, anon_sym_async]), (ACTIONS 2442, 24, [anon_sym_LBRACE,
       anon_sym_LBRACK, anon_sym_COMMA, anon_sym_LPAREN, anon_sym_QMARK_QMARK,
       sym_equality_operator, anon_sym_LT_EQ, anon_sym_GT_EQ, anon_sym_CARET, anon_sym_LT_LT,
       anon_sym_GT_GT_GT, sym__additive_operator, anon_sym_STAR, anon_sym_PERCENT,
       anon_sym_TILDE_SLASH, anon_sym_is, anon_sym_DOT_DOT, anon_sym_QMARK_DOT_DOT,
       anon_sym_SEMI, anon_sym_EQ_GT, anon_sym_async_STAR, anon_sym_sync_STAR, anon_sym_AMP_AMP,
       anon_sym_PIPE_PIPE])]),
     (34992, 8, [(ACTIONS 3, 1, [anon_sym_SLASH_SLASH]), (ACTIONS 5, 1, [anon_sym_SLASH_STAR]),
       (ACTIONS 7, 1, [anon_sym_SLASH_SLASH_SLASH]), (ACTIONS 9, 1, [sym__block_comment]),
       (ACTIONS 11, 1, [sym__documentation_block_comment]), (STATE 847, 2, [sym_comment,
       sym_documentation_comment]), (ACTIONS 2651, 10, [anon_sym_QMARK, anon_sym_LT, anon_sym_GT,
       anon_sym_PIPE, anon_sym_AMP, anon_sym_GT_GT, anon_sym_SLASH, anon_sym_BANG, anon_sym_DOT,
       anon_sym_QMARK_DOT]), (ACTIONS 2649, 30, [anon_sym_RBRACE, anon_sym_LBRACK,
       anon_sym_COMMA, anon_sym_RBRACK, anon_sym_COLON, anon_sym_LPAREN, anon_sym_RPAREN,
       anon_sym_QMARK_QMARK, sym_equality_operator, anon_sym_LT_EQ, anon_sym_GT_EQ,
       anon_sym_CARET, anon_sym_LT_LT, anon_sym_GT_GT_GT, sym__additive_operator, anon_sym_STAR,
       anon_sym_PERCENT, anon_sym_TILDE_SLASH, anon_sym_is, anon_sym_as, anon_sym_DOT_DOT,
       anon_sym_QMARK_DOT_DOT, anon_sym_SEMI, anon_sym_EQ_GT, anon_sym_when, anon_sym_case,
       anon_sym_else, anon_sym_Function, anon_sym_AMP_AMP, anon_sym_PIPE_PIPE])])]"

lemma small_run_253: "small_run 846 34922 ts_small_parse_table_253 848 35056"
  by (simp add: small_simps ts_small_parse_table_253_def)

definition ts_small_parse_table_254 :: "small_group list" where
  "ts_small_parse_table_254 = [
     (35056, 8, [(ACTIONS 3, 1, [anon_sym_SLASH_SLASH]), (ACTIONS 5, 1, [anon_sym_SLASH_STAR]),
       (ACTIONS 7, 1, [anon_sym_SLASH_SLASH_SLASH]), (ACTIONS 9, 1, [sym__block_comment]),
       (ACTIONS 11, 1, [sym__documentation_block_comment]), (STATE 848, 2, [sym_comment,
       sym_documentation_comment]), (ACTIONS 2655, 10, [anon_sym_QMARK, anon_sym_LT, anon_sym_GT,
       anon_sym_PIPE, anon_sym_AMP, anon_sym_GT_GT, anon_sym_SLASH, anon_sym_BANG, anon_sym_DOT,
       anon_sym_QMARK_DOT]), (ACTIONS 2653, 30, [anon_sym_RBRACE, anon_sym_LBRACK,
       anon_sym_COMMA, anon_sym_RBRACK, anon_sym_COLON, anon_sym_LPAREN, anon_sym_RPAREN,
       anon_sym_QMARK_QMARK, sym_equality_operator, anon_sym_LT_EQ, anon_sym_GT_EQ,
       anon_sym_CARET, anon_sym_LT_LT, anon_sym_GT_GT_GT, sym__additive_operator, anon_sym_STAR,
       anon_sym_PERCENT, anon_sym_TILDE_SLASH, anon_sym_is, anon_sym_as, anon_sym_DOT_DOT,
       anon_sym_QMARK_DOT_DOT, anon_sym_SEMI, anon_sym_EQ_GT, anon_sym_when, anon_sym_case,
       anon_sym_else, anon_sym_Function, anon_sym_AMP_AMP, anon_sym_PIPE_PIPE])]),
     (35120, 9, [(ACTIONS 3, 1, [anon_sym_SLASH_SLASH]), (ACTIONS 5, 1, [anon_sym_SLASH_STAR]),
       (ACTIONS 7, 1, [anon_sym_SLASH_SLASH_SLASH]), (ACTIONS 9, 1, [sym__block_comment]),
       (ACTIONS 11, 1, [sym__documentation_block_comment]), (ACTIONS 2659, 1, [anon_sym_EQ]),
       (STATE 849, 2, [sym_comment, sym_documentation_comment]), (ACTIONS 2661, 10,
       [anon_sym_QMARK, anon_sym_LT, anon_sym_GT, anon_sym_PIPE, anon_sym_AMP, anon_sym_GT_GT,
       anon_sym_SLASH, anon_sym_BANG, anon_sym_DOT, anon_sym_QMARK_DOT]), (ACTIONS 2657, 29,
       [anon_sym_RBRACE, anon_sym_LBRACK, anon_sym_COMMA, anon_sym_RBRACK, anon_sym_COLON,
       anon_sym_LPAREN, anon_sym_RPAREN, anon_sym_QMARK_QMARK, sym_equality_operator,
       anon_sym_LT_EQ, anon_sym_GT_EQ, anon_sym_CARET, anon_sym_LT_LT, anon_sym_GT_GT_GT,
       sym__additive_operator, anon_sym_STAR, anon_sym_PERCENT, anon_sym_TILDE_SLASH,
       anon_sym_is, anon_sym_as, anon_sym_DOT_DOT, anon_sym_QMARK_DOT_DOT, anon_sym_SEMI,
       anon_sym_EQ_GT, anon_sym_when, anon_sym_case, anon_sym_else, anon_sym_AMP_AMP,
       anon_sym_PIPE_PIPE])])]"

lemma small_run_254: "small_run 848 35056 ts_small_parse_table_254 850 35186"
  by (simp add: small_simps ts_small_parse_table_254_def)

definition ts_small_parse_table_255 :: "small_group list" where
  "ts_small_parse_table_255 = [
     (35186, 8, [(ACTIONS 3, 1, [anon_sym_SLASH_SLASH]), (ACTIONS 5, 1, [anon_sym_SLASH_STAR]),
       (ACTIONS 7, 1, [anon_sym_SLASH_SLASH_SLASH]), (ACTIONS 9, 1, [sym__block_comment]),
       (ACTIONS 11, 1, [sym__documentation_block_comment]), (STATE 850, 2, [sym_comment,
       sym_documentation_comment]), (ACTIONS 1697, 11, [anon_sym_QMARK, anon_sym_LT, anon_sym_GT,
       anon_sym_PIPE, anon_sym_AMP, anon_sym_GT_GT, sym__additive_operator, anon_sym_SLASH,
       anon_sym_BANG, anon_sym_DOT, anon_sym_QMARK_DOT]), (ACTIONS 1695, 29, [anon_sym_RBRACE,
       anon_sym_LBRACK, anon_sym_COMMA, anon_sym_RBRACK, anon_sym_COLON, anon_sym_LPAREN,
       anon_sym_RPAREN, anon_sym_QMARK_QMARK, sym_equality_operator, anon_sym_LT_EQ,
       anon_sym_GT_EQ, anon_sym_CARET, anon_sym_LT_LT, anon_sym_GT_GT_GT, anon_sym_STAR,
       anon_sym_PERCENT, anon_sym_TILDE_SLASH, sym_increment_operator, anon_sym_is, anon_sym_as,
       anon_sym_DOT_DOT, anon_sym_QMARK_DOT_DOT, anon_sym_SEMI, anon_sym_EQ_GT, anon_sym_when,
       anon_sym_case, anon_sym_else, anon_sym_AMP_AMP, anon_sym_PIPE_PIPE])]),
     (35250, 14, [(ACTIONS 3, 1, [anon_sym_SLASH_SLASH]), (ACTIONS 5, 1,
       [anon_sym_SLASH_STAR]), (ACTIONS 7, 1, [anon_sym_SLASH_SLASH_SLASH]), (ACTIONS 9, 1,
       [sym__block_comment]), (ACTIONS 11, 1, [sym__documentation_block_comment]), (ACTIONS 2663,
       1, [anon_sym_LPAREN]), (ACTIONS 2666, 1, [anon_sym_QMARK]), (ACTIONS 2669, 1,
       [anon_sym_LT]), (STATE 929, 1, [sym_nullable_type]), (STATE 936, 1,
       [sym_type_parameters]), (STATE 1014, 1, [sym_parameter_type_list]), (STATE 851, 2,
       [sym_comment, sym_documentation_comment]), (ACTIONS 2460, 10, [anon_sym_GT, anon_sym_PIPE,
       anon_sym_AMP, anon_sym_GT_GT, anon_sym_SLASH, anon_sym_BANG, anon_sym_as, anon_sym_DOT,
       anon_sym_QMARK_DOT, anon_sym_async]), (ACTIONS 2449, 24, [anon_sym_LBRACE,
       anon_sym_LBRACK, anon_sym_COMMA, anon_sym_QMARK_QMARK, sym_equality_operator,
       anon_sym_LT_EQ, anon_sym_GT_EQ, anon_sym_CARET, anon_sym_LT_LT, anon_sym_GT_GT_GT,
       sym__additive_operator, anon_sym_STAR, anon_sym_PERCENT, anon_sym_TILDE_SLASH,
       anon_sym_is, anon_sym_DOT_DOT, anon_sym_QMARK_DOT_DOT, anon_sym_SEMI, anon_sym_EQ_GT,
       anon_sym_async_STAR, anon_sym_sync_STAR, anon_sym_Function, anon_sym_AMP_AMP,
       anon_sym_PIPE_PIPE])])]"

lemma small_run_255: "small_run 850 35186 ts_small_parse_table_255 852 35326"
  by (simp add: small_simps ts_small_parse_table_255_def)

definition ts_small_parse_table_256 :: "small_group list" where
  "ts_small_parse_table_256 = [
     (35326, 9, [(ACTIONS 3, 1, [anon_sym_SLASH_SLASH]), (ACTIONS 5, 1, [anon_sym_SLASH_STAR]),
       (ACTIONS 7, 1, [anon_sym_SLASH_SLASH_SLASH]), (ACTIONS 9, 1, [sym__block_comment]),
       (ACTIONS 11, 1, [sym__documentation_block_comment]), (ACTIONS 2674, 1, [anon_sym_EQ]),
       (STATE 852, 2, [sym_comment, sym_documentation_comment]), (ACTIONS 2676, 10,
       [anon_sym_QMARK, anon_sym_LT, anon_sym_GT, anon_sym_PIPE, anon_sym_AMP, anon_sym_GT_GT,
       anon_sym_SLASH, anon_sym_BANG, anon_sym_DOT, anon_sym_QMARK_DOT]), (ACTIONS 2672, 29,
       [anon_sym_RBRACE, anon_sym_LBRACK, anon_sym_COMMA, anon_sym_RBRACK, anon_sym_COLON,
       anon_sym_LPAREN, anon_sym_RPAREN, anon_sym_QMARK_QMARK, sym_equality_operator,
       anon_sym_LT_EQ, anon_sym_GT_EQ, anon_sym_CARET, anon_sym_LT_LT, anon_sym_GT_GT_GT,
       sym__additive_operator, anon_sym_STAR, anon_sym_PERCENT, anon_sym_TILDE_SLASH,
       anon_sym_is, anon_sym_as, anon_sym_DOT_DOT, anon_sym_QMARK_DOT_DOT, anon_sym_SEMI,
       anon_sym_EQ_GT, anon_sym_when, anon_sym_case, anon_sym_else, anon_sym_AMP_AMP,
       anon_sym_PIPE_PIPE])]),
     (35392, 8, [(ACTIONS 3, 1, [anon_sym_SLASH_SLASH]), (ACTIONS 5, 1, [anon_sym_SLASH_STAR]),
       (ACTIONS 7, 1, [anon_sym_SLASH_SLASH_SLASH]), (ACTIONS 9, 1, [sym__block_comment]),
       (ACTIONS 11, 1, [sym__documentation_block_comment]), (STATE 853, 2, [sym_comment,
       sym_documentation_comment]), (ACTIONS 2680, 10, [anon_sym_QMARK, anon_sym_LT, anon_sym_GT,
       anon_sym_PIPE, anon_sym_AMP, anon_sym_GT_GT, anon_sym_SLASH, anon_sym_BANG, anon_sym_DOT,
       anon_sym_QMARK_DOT]), (ACTIONS 2678, 30, [anon_sym_RBRACE, anon_sym_LBRACK,
       anon_sym_COMMA, anon_sym_RBRACK, anon_sym_COLON, anon_sym_LPAREN, anon_sym_RPAREN,
       anon_sym_QMARK_QMARK, sym_equality_operator, anon_sym_LT_EQ, anon_sym_GT_EQ,
       anon_sym_CARET, anon_sym_LT_LT, anon_sym_GT_GT_GT, sym__additive_operator, anon_sym_STAR,
       anon_sym_PERCENT, anon_sym_TILDE_SLASH, anon_sym_is, anon_sym_as, anon_sym_DOT_DOT,
       anon_sym_QMARK_DOT_DOT, anon_sym_SEMI, anon_sym_EQ_GT, anon_sym_when, anon_sym_case,
       anon_sym_else, anon_sym_Function, anon_sym_AMP_AMP, anon_sym_PIPE_PIPE])])]"

lemma small_run_256: "small_run 852 35326 ts_small_parse_table_256 854 35456"
  by (simp add: small_simps ts_small_parse_table_256_def)

definition ts_small_parse_table_257 :: "small_group list" where
  "ts_small_parse_table_257 = [
     (35456, 8, [(ACTIONS 3, 1, [anon_sym_SLASH_SLASH]), (ACTIONS 5, 1, [anon_sym_SLASH_STAR]),
       (ACTIONS 7, 1, [anon_sym_SLASH_SLASH_SLASH]), (ACTIONS 9, 1, [sym__block_comment]),
       (ACTIONS 11, 1, [sym__documentation_block_comment]), (STATE 854, 2, [sym_comment,
       sym_documentation_comment]), (ACTIONS 2684, 10, [anon_sym_QMARK, anon_sym_LT, anon_sym_GT,
       anon_sym_PIPE, anon_sym_AMP, anon_sym_GT_GT, anon_sym_SLASH, anon_sym_BANG, anon_sym_DOT,
       anon_sym_QMARK_DOT]), (ACTIONS 2682, 30, [anon_sym_RBRACE, anon_sym_LBRACK,
       anon_sym_COMMA, anon_sym_RBRACK, anon_sym_COLON, anon_sym_LPAREN, anon_sym_RPAREN,
       anon_sym_QMARK_QMARK, sym_equality_operator, anon_sym_LT_EQ, anon_sym_GT_EQ,
       anon_sym_CARET, anon_sym_LT_LT, anon_sym_GT_GT_GT, sym__additive_operator, anon_sym_STAR,
       anon_sym_PERCENT, anon_sym_TILDE_SLASH, anon_sym_is, anon_sym_as, anon_sym_DOT_DOT,
       anon_sym_QMARK_DOT_DOT, anon_sym_SEMI, anon_sym_EQ_GT, anon_sym_when, anon_sym_case,
       anon_sym_else, anon_sym_Function, anon_sym_AMP_AMP, anon_sym_PIPE_PIPE])]),
     (35520, 8, [(ACTIONS 3, 1, [anon_sym_SLASH_SLASH]), (ACTIONS 5, 1, [anon_sym_SLASH_STAR]),
       (ACTIONS 7, 1, [anon_sym_SLASH_SLASH_SLASH]), (ACTIONS 9, 1, [sym__block_comment]),
       (ACTIONS 11, 1, [sym__documentation_block_comment]), (STATE 855, 2, [sym_comment,
       sym_documentation_comment]), (ACTIONS 2688, 10, [anon_sym_QMARK, anon_sym_LT, anon_sym_GT,
       anon_sym_PIPE, anon_sym_AMP, anon_sym_GT_GT, anon_sym_SLASH, anon_sym_BANG, anon_sym_DOT,
       anon_sym_QMARK_DOT]), (ACTIONS 2686, 30, [anon_sym_RBRACE, anon_sym_LBRACK,
       anon_sym_COMMA, anon_sym_RBRACK, anon_sym_COLON, anon_sym_LPAREN, anon_sym_RPAREN,
       anon_sym_QMARK_QMARK, sym_equality_operator, anon_sym_LT_EQ, anon_sym_GT_EQ,
       anon_sym_CARET, anon_sym_LT_LT, anon_sym_GT_GT_GT, sym__additive_operator, anon_sym_STAR,
       anon_sym_PERCENT, anon_sym_TILDE_SLASH, anon_sym_is, anon_sym_as, anon_sym_DOT_DOT,
       anon_sym_QMARK_DOT_DOT, anon_sym_SEMI, anon_sym_EQ_GT, anon_sym_when, anon_sym_case,
       anon_sym_else, anon_sym_Function, anon_sym_AMP_AMP, anon_sym_PIPE_PIPE])])]"

lemma small_run_257: "small_run 854 35456 ts_small_parse_table_257 856 35584"
  by (simp add: small_simps ts_small_parse_table_257_def)

definition ts_small_parse_table_258 :: "small_group list" where
  "ts_small_parse_table_258 = [
     (35584, 8, [(ACTIONS 3, 1, [anon_sym_SLASH_SLASH]), (ACTIONS 5, 1, [anon_sym_SLASH_STAR]),
       (ACTIONS 7, 1, [anon_sym_SLASH_SLASH_SLASH]), (ACTIONS 9, 1, [sym__block_comment]),
       (ACTIONS 11, 1, [sym__documentation_block_comment]), (STATE 856, 2, [sym_comment,
       sym_documentation_comment]), (ACTIONS 2692, 10, [anon_sym_QMARK, anon_sym_LT, anon_sym_GT,
       anon_sym_PIPE, anon_sym_AMP, anon_sym_GT_GT, anon_sym_SLASH, anon_sym_BANG, anon_sym_DOT,
       anon_sym_QMARK_DOT]), (ACTIONS 2690, 30, [anon_sym_RBRACE, anon_sym_LBRACK,
       anon_sym_COMMA, anon_sym_RBRACK, anon_sym_COLON, anon_sym_LPAREN, anon_sym_RPAREN,
       anon_sym_QMARK_QMARK, sym_equality_operator, anon_sym_LT_EQ, anon_sym_GT_EQ,
       anon_sym_CARET, anon_sym_LT_LT, anon_sym_GT_GT_GT, sym__additive_operator, anon_sym_STAR,
       anon_sym_PERCENT, anon_sym_TILDE_SLASH, anon_sym_is, anon_sym_as, anon_sym_DOT_DOT,
       anon_sym_QMARK_DOT_DOT, anon_sym_SEMI, anon_sym_EQ_GT, anon_sym_when, anon_sym_case,
       anon_sym_else, anon_sym_Function, anon_sym_AMP_AMP, anon_sym_PIPE_PIPE])]),
     (35648, 9, [(ACTIONS 3, 1, [anon_sym_SLASH_SLASH]), (ACTIONS 5, 1, [anon_sym_SLASH_STAR]),
       (ACTIONS 7, 1, [anon_sym_SLASH_SLASH_SLASH]), (ACTIONS 9, 1, [sym__block_comment]),
       (ACTIONS 11, 1, [sym__documentation_block_comment]), (ACTIONS 2548, 1,
       [anon_sym_Function]), (STATE 857, 2, [sym_comment, sym_documentation_comment]), (ACTIONS
       2546, 10, [anon_sym_QMARK, anon_sym_LT, anon_sym_GT, anon_sym_PIPE, anon_sym_AMP,
       anon_sym_GT_GT, anon_sym_SLASH, anon_sym_BANG, anon_sym_DOT, anon_sym_QMARK_DOT]),
       (ACTIONS 2541, 29, [anon_sym_RBRACE, anon_sym_LBRACK, anon_sym_COMMA, anon_sym_RBRACK,
       anon_sym_COLON, anon_sym_LPAREN, anon_sym_RPAREN, anon_sym_QMARK_QMARK,
       sym_equality_operator, anon_sym_LT_EQ, anon_sym_GT_EQ, anon_sym_CARET, anon_sym_LT_LT,
       anon_sym_GT_GT_GT, sym__additive_operator, anon_sym_STAR, anon_sym_PERCENT,
       anon_sym_TILDE_SLASH, anon_sym_is, anon_sym_as, anon_sym_DOT_DOT, anon_sym_QMARK_DOT_DOT,
       anon_sym_SEMI, anon_sym_EQ_GT, anon_sym_when, anon_sym_case, anon_sym_else,
       anon_sym_AMP_AMP, anon_sym_PIPE_PIPE])])]"

lemma small_run_258: "small_run 856 35584 ts_small_parse_table_258 858 35714"
  by (simp add: small_simps ts_small_parse_table_258_def)

definition ts_small_parse_table_259 :: "small_group list" where
  "ts_small_parse_table_259 = [
     (35714, 8, [(ACTIONS 3, 1, [anon_sym_SLASH_SLASH]), (ACTIONS 5, 1, [anon_sym_SLASH_STAR]),
       (ACTIONS 7, 1, [anon_sym_SLASH_SLASH_SLASH]), (ACTIONS 9, 1, [sym__block_comment]),
       (ACTIONS 11, 1, [sym__documentation_block_comment]), (STATE 858, 2, [sym_comment,
       sym_documentation_comment]), (ACTIONS 1670, 11, [anon_sym_QMARK, anon_sym_LT, anon_sym_GT,
       anon_sym_PIPE, anon_sym_AMP, anon_sym_GT_GT, sym__additive_operator, anon_sym_SLASH,
       anon_sym_BANG, anon_sym_DOT, anon_sym_QMARK_DOT]), (ACTIONS 1668, 29, [anon_sym_RBRACE,
       anon_sym_LBRACK, anon_sym_COMMA, anon_sym_RBRACK, anon_sym_COLON, anon_sym_LPAREN,
       anon_sym_RPAREN, anon_sym_QMARK_QMARK, sym_equality_operator, anon_sym_LT_EQ,
       anon_sym_GT_EQ, anon_sym_CARET, anon_sym_LT_LT, anon_sym_GT_GT_GT, anon_sym_STAR,
       anon_sym_PERCENT, anon_sym_TILDE_SLASH, sym_increment_operator, anon_sym_is, anon_sym_as,
       anon_sym_DOT_DOT, anon_sym_QMARK_DOT_DOT, anon_sym_SEMI, anon_sym_EQ_GT, anon_sym_when,
       anon_sym_case, anon_sym_else, anon_sym_AMP_AMP, anon_sym_PIPE_PIPE])]),
     (35778, 9, [(ACTIONS 3, 1, [anon_sym_SLASH_SLASH]), (ACTIONS 5, 1, [anon_sym_SLASH_STAR]),
       (ACTIONS 7, 1, [anon_sym_SLASH_SLASH_SLASH]), (ACTIONS 9, 1, [sym__block_comment]),
       (ACTIONS 11, 1, [sym__documentation_block_comment]), (ACTIONS 1684, 1,
       [sym_increment_operator]), (STATE 859, 2, [sym_comment, sym_documentation_comment]),
       (ACTIONS 1686, 11, [anon_sym_QMARK, anon_sym_LT, anon_sym_GT, anon_sym_PIPE, anon_sym_AMP,
       anon_sym_GT_GT, sym__additive_operator, anon_sym_SLASH, anon_sym_BANG, anon_sym_DOT,
       anon_sym_QMARK_DOT]), (ACTIONS 1680, 28, [anon_sym_RBRACE, anon_sym_LBRACK,
       anon_sym_COMMA, anon_sym_RBRACK, anon_sym_COLON, anon_sym_LPAREN, anon_sym_RPAREN,
       anon_sym_QMARK_QMARK, sym_equality_operator, anon_sym_LT_EQ, anon_sym_GT_EQ,
       anon_sym_CARET, anon_sym_LT_LT, anon_sym_GT_GT_GT, anon_sym_STAR, anon_sym_PERCENT,
       anon_sym_TILDE_SLASH, anon_sym_is, anon_sym_as, anon_sym_DOT_DOT, anon_sym_QMARK_DOT_DOT,
       anon_sym_SEMI, anon_sym_EQ_GT, anon_sym_when, anon_sym_case, anon_sym_else,
       anon_sym_AMP_AMP, anon_sym_PIPE_PIPE])])]"

lemma small_run_259: "small_run 858 35714 ts_small_parse_table_259 860 35844"
  by (simp add: small_simps ts_small_parse_table_259_def)

definition ts_small_parse_table_260 :: "small_group list" where
  "ts_small_parse_table_260 = [
     (35844, 9, [(ACTIONS 3, 1, [anon_sym_SLASH_SLASH]), (ACTIONS 5, 1, [anon_sym_SLASH_STAR]),
       (ACTIONS 7, 1, [anon_sym_SLASH_SLASH_SLASH]), (ACTIONS 9, 1, [sym__block_comment]),
       (ACTIONS 11, 1, [sym__documentation_block_comment]), (ACTIONS 2696, 1, [anon_sym_EQ]),
       (STATE 860, 2, [sym_comment, sym_documentation_comment]), (ACTIONS 2698, 10,
       [anon_sym_QMARK, anon_sym_LT, anon_sym_GT, anon_sym_PIPE, anon_sym_AMP, anon_sym_GT_GT,
       anon_sym_SLASH, anon_sym_BANG, anon_sym_DOT, anon_sym_QMARK_DOT]), (ACTIONS 2694, 29,
       [anon_sym_RBRACE, anon_sym_LBRACK, anon_sym_COMMA, anon_sym_RBRACK, anon_sym_COLON,
       anon_sym_LPAREN, anon_sym_RPAREN, anon_sym_QMARK_QMARK, sym_equality_operator,
       anon_sym_LT_EQ, anon_sym_GT_EQ, anon_sym_CARET, anon_sym_LT_LT, anon_sym_GT_GT_GT,
       sym__additive_operator, anon_sym_STAR, anon_sym_PERCENT, anon_sym_TILDE_SLASH,
       anon_sym_is, anon_sym_as, anon_sym_DOT_DOT, anon_sym_QMARK_DOT_DOT, anon_sym_SEMI,
       anon_sym_EQ_GT, anon_sym_when, anon_sym_case, anon_sym_else, anon_sym_AMP_AMP,
       anon_sym_PIPE_PIPE])]),
     (35910, 8, [(ACTIONS 3, 1, [anon_sym_SLASH_SLASH]), (ACTIONS 5, 1, [anon_sym_SLASH_STAR]),
       (ACTIONS 7, 1, [anon_sym_SLASH_SLASH_SLASH]), (ACTIONS 9, 1, [sym__block_comment]),
       (ACTIONS 11, 1, [sym__documentation_block_comment]), (STATE 861, 2, [sym_comment,
       sym_documentation_comment]), (ACTIONS 2702, 10, [anon_sym_QMARK, anon_sym_LT, anon_sym_GT,
       anon_sym_PIPE, anon_sym_AMP, anon_sym_GT_GT, anon_sym_SLASH, anon_sym_BANG, anon_sym_DOT,
       anon_sym_QMARK_DOT]), (ACTIONS 2700, 30, [anon_sym_RBRACE, anon_sym_LBRACK,
       anon_sym_COMMA, anon_sym_RBRACK, anon_sym_COLON, anon_sym_LPAREN, anon_sym_RPAREN,
       anon_sym_QMARK_QMARK, sym_equality_operator, anon_sym_LT_EQ, anon_sym_GT_EQ,
       anon_sym_CARET, anon_sym_LT_LT, anon_sym_GT_GT_GT, sym__additive_operator, anon_sym_STAR,
       anon_sym_PERCENT, anon_sym_TILDE_SLASH, anon_sym_is, anon_sym_as, anon_sym_DOT_DOT,
       anon_sym_QMARK_DOT_DOT, anon_sym_SEMI, anon_sym_EQ_GT, anon_sym_when, anon_sym_case,
       anon_sym_else, anon_sym_Function, anon_sym_AMP_AMP, anon_sym_PIPE_PIPE])])]"

lemma small_run_260: "small_run 860 35844 ts_small_parse_table_260 862 35974"
  by (simp add: small_simps ts_small_parse_table_260_def)

definition ts_small_parse_table_261 :: "small_group list" where
  "ts_small_parse_table_261 = [
     (35974, 10, [(ACTIONS 3, 1, [anon_sym_SLASH_SLASH]), (ACTIONS 5, 1,
       [anon_sym_SLASH_STAR]), (ACTIONS 7, 1, [anon_sym_SLASH_SLASH_SLASH]), (ACTIONS 9, 1,
       [sym__block_comment]), (ACTIONS 11, 1, [sym__documentation_block_comment]), (ACTIONS 2001,
       1, [anon_sym_LPAREN]), (STATE 955, 1, [sym_arguments]), (STATE 862, 2, [sym_comment,
       sym_documentation_comment]), (ACTIONS 2706, 10, [anon_sym_QMARK, anon_sym_LT, anon_sym_GT,
       anon_sym_PIPE, anon_sym_AMP, anon_sym_GT_GT, anon_sym_SLASH, anon_sym_BANG, anon_sym_DOT,
       anon_sym_QMARK_DOT]), (ACTIONS 2704, 28, [anon_sym_RBRACE, anon_sym_LBRACK,
       anon_sym_COMMA, anon_sym_RBRACK, anon_sym_COLON, anon_sym_RPAREN, anon_sym_QMARK_QMARK,
       sym_equality_operator, anon_sym_LT_EQ, anon_sym_GT_EQ, anon_sym_CARET, anon_sym_LT_LT,
       anon_sym_GT_GT_GT, sym__additive_operator, anon_sym_STAR, anon_sym_PERCENT,
       anon_sym_TILDE_SLASH, anon_sym_is, anon_sym_as, anon_sym_DOT_DOT, anon_sym_QMARK_DOT_DOT,
       anon_sym_SEMI, anon_sym_EQ_GT, anon_sym_when, anon_sym_case, anon_sym_else,
       anon_sym_AMP_AMP, anon_sym_PIPE_PIPE])]),
     (36042, 8, [(ACTIONS 3, 1, [anon_sym_SLASH_SLASH]), (ACTIONS 5, 1, [anon_sym_SLASH_STAR]),
       (ACTIONS 7, 1, [anon_sym_SLASH_SLASH_SLASH]), (ACTIONS 9, 1, [sym__block_comment]),
       (ACTIONS 11, 1, [sym__documentation_block_comment]), (STATE 863, 2, [sym_comment,
       sym_documentation_comment]), (ACTIONS 2710, 10, [anon_sym_QMARK, anon_sym_LT, anon_sym_GT,
       anon_sym_PIPE, anon_sym_AMP, anon_sym_GT_GT, anon_sym_SLASH, anon_sym_BANG, anon_sym_DOT,
       anon_sym_QMARK_DOT]), (ACTIONS 2708, 30, [anon_sym_RBRACE, anon_sym_LBRACK,
       anon_sym_COMMA, anon_sym_RBRACK, anon_sym_COLON, anon_sym_LPAREN, anon_sym_RPAREN,
       anon_sym_QMARK_QMARK, sym_equality_operator, anon_sym_LT_EQ, anon_sym_GT_EQ,
       anon_sym_CARET, anon_sym_LT_LT, anon_sym_GT_GT_GT, sym__additive_operator, anon_sym_STAR,
       anon_sym_PERCENT, anon_sym_TILDE_SLASH, anon_sym_is, anon_sym_as, anon_sym_DOT_DOT,
       anon_sym_QMARK_DOT_DOT, anon_sym_SEMI, anon_sym_EQ_GT, anon_sym_when, anon_sym_case,
       anon_sym_else, anon_sym_Function, anon_sym_AMP_AMP, anon_sym_PIPE_PIPE])])]"

lemma small_run_261: "small_run 862 35974 ts_small_parse_table_261 864 36106"
  by (simp add: small_simps ts_small_parse_table_261_def)

definition ts_small_parse_table_262 :: "small_group list" where
  "ts_small_parse_table_262 = [
     (36106, 8, [(ACTIONS 3, 1, [anon_sym_SLASH_SLASH]), (ACTIONS 5, 1, [anon_sym_SLASH_STAR]),
       (ACTIONS 7, 1, [anon_sym_SLASH_SLASH_SLASH]), (ACTIONS 9, 1, [sym__block_comment]),
       (ACTIONS 11, 1, [sym__documentation_block_comment]), (STATE 864, 2, [sym_comment,
       sym_documentation_comment]), (ACTIONS 2714, 10, [anon_sym_QMARK, anon_sym_LT, anon_sym_GT,
       anon_sym_PIPE, anon_sym_AMP, anon_sym_GT_GT, anon_sym_SLASH, anon_sym_BANG, anon_sym_DOT,
       anon_sym_QMARK_DOT]), (ACTIONS 2712, 30, [anon_sym_RBRACE, anon_sym_LBRACK,
       anon_sym_COMMA, anon_sym_RBRACK, anon_sym_COLON, anon_sym_LPAREN, anon_sym_RPAREN,
       anon_sym_QMARK_QMARK, sym_equality_operator, anon_sym_LT_EQ, anon_sym_GT_EQ,
       anon_sym_CARET, anon_sym_LT_LT, anon_sym_GT_GT_GT, sym__additive_operator, anon_sym_STAR,
       anon_sym_PERCENT, anon_sym_TILDE_SLASH, anon_sym_is, anon_sym_as, anon_sym_DOT_DOT,
       anon_sym_QMARK_DOT_DOT, anon_sym_SEMI, anon_sym_EQ_GT, anon_sym_when, anon_sym_case,
       anon_sym_else, anon_sym_Function, anon_sym_AMP_AMP, anon_sym_PIPE_PIPE])]),
     (36170, 8, [(ACTIONS 3, 1, [anon_sym_SLASH_SLASH]), (ACTIONS 5, 1, [anon_sym_SLASH_STAR]),
       (ACTIONS 7, 1, [anon_sym_SLASH_SLASH_SLASH]), (ACTIONS 9, 1, [sym__block_comment]),
       (ACTIONS 11, 1, [sym__documentation_block_comment]), (STATE 865, 2, [sym_comment,
       sym_documentation_comment]), (ACTIONS 2718, 10, [anon_sym_QMARK, anon_sym_LT, anon_sym_GT,
       anon_sym_PIPE, anon_sym_AMP, anon_sym_GT_GT, anon_sym_SLASH, anon_sym_BANG, anon_sym_DOT,
       anon_sym_QMARK_DOT]), (ACTIONS 2716, 30, [anon_sym_RBRACE, anon_sym_LBRACK,
       anon_sym_COMMA, anon_sym_RBRACK, anon_sym_COLON, anon_sym_LPAREN, anon_sym_RPAREN,
       anon_sym_QMARK_QMARK, sym_equality_operator, anon_sym_LT_EQ, anon_sym_GT_EQ,
       anon_sym_CARET, anon_sym_LT_LT, anon_sym_GT_GT_GT, sym__additive_operator, anon_sym_STAR,
       anon_sym_PERCENT, anon_sym_TILDE_SLASH, anon_sym_is, anon_sym_as, anon_sym_DOT_DOT,
       anon_sym_QMARK_DOT_DOT, anon_sym_SEMI, anon_sym_EQ_GT, anon_sym_when, anon_sym_case,
       anon_sym_else, anon_sym_Function, anon_sym_AMP_AMP, anon_sym_PIPE_PIPE])])]"

lemma small_run_262: "small_run 864 36106 ts_small_parse_table_262 866 36234"
  by (simp add: small_simps ts_small_parse_table_262_def)

definition ts_small_parse_table_263 :: "small_group list" where
  "ts_small_parse_table_263 = [
     (36234, 8, [(ACTIONS 3, 1, [anon_sym_SLASH_SLASH]), (ACTIONS 5, 1, [anon_sym_SLASH_STAR]),
       (ACTIONS 7, 1, [anon_sym_SLASH_SLASH_SLASH]), (ACTIONS 9, 1, [sym__block_comment]),
       (ACTIONS 11, 1, [sym__documentation_block_comment]), (STATE 866, 2, [sym_comment,
       sym_documentation_comment]), (ACTIONS 2722, 10, [anon_sym_QMARK, anon_sym_LT, anon_sym_GT,
       anon_sym_PIPE, anon_sym_AMP, anon_sym_GT_GT, anon_sym_SLASH, anon_sym_BANG, anon_sym_DOT,
       anon_sym_QMARK_DOT]), (ACTIONS 2720, 30, [anon_sym_RBRACE, anon_sym_LBRACK,
       anon_sym_COMMA, anon_sym_RBRACK, anon_sym_COLON, anon_sym_LPAREN, anon_sym_RPAREN,
       anon_sym_QMARK_QMARK, sym_equality_operator, anon_sym_LT_EQ, anon_sym_GT_EQ,
       anon_sym_CARET, anon_sym_LT_LT, anon_sym_GT_GT_GT, sym__additive_operator, anon_sym_STAR,
       anon_sym_PERCENT, anon_sym_TILDE_SLASH, anon_sym_is, anon_sym_as, anon_sym_DOT_DOT,
       anon_sym_QMARK_DOT_DOT, anon_sym_SEMI, anon_sym_EQ_GT, anon_sym_when, anon_sym_case,
       anon_sym_else, anon_sym_Function, anon_sym_AMP_AMP, anon_sym_PIPE_PIPE])]),
     (36298, 12, [(ACTIONS 3, 1, [anon_sym_SLASH_SLASH]), (ACTIONS 5, 1,
       [anon_sym_SLASH_STAR]), (ACTIONS 7, 1, [anon_sym_SLASH_SLASH_SLASH]), (ACTIONS 9, 1,
       [sym__block_comment]), (ACTIONS 11, 1, [sym__documentation_block_comment]), (ACTIONS 2724,
       1, [anon_sym_Function]), (STATE 846, 1, [aux_sym__function_type_tails]), (STATE 851, 1,
       [sym__function_builtin_identifier]), (STATE 1071, 1, [sym__function_type_tail]), (STATE
       867, 2, [sym_comment, sym_documentation_comment]), (ACTIONS 2415, 12, [anon_sym_QMARK,
       anon_sym_LT, anon_sym_GT, anon_sym_PIPE, anon_sym_AMP, anon_sym_GT_GT, anon_sym_SLASH,
       anon_sym_BANG, anon_sym_as, anon_sym_DOT, anon_sym_QMARK_DOT, anon_sym_async]), (ACTIONS
       2413, 24, [anon_sym_LBRACE, anon_sym_LBRACK, anon_sym_COMMA, anon_sym_LPAREN,
       anon_sym_QMARK_QMARK, sym_equality_operator, anon_sym_LT_EQ, anon_sym_GT_EQ,
       anon_sym_CARET, anon_sym_LT_LT, anon_sym_GT_GT_GT, sym__additive_operator, anon_sym_STAR,
       anon_sym_PERCENT, anon_sym_TILDE_SLASH, anon_sym_is, anon_sym_DOT_DOT,
       anon_sym_QMARK_DOT_DOT, anon_sym_SEMI, anon_sym_EQ_GT, anon_sym_async_STAR,
       anon_sym_sync_STAR, anon_sym_AMP_AMP, anon_sym_PIPE_PIPE])])]"

lemma small_run_263: "small_run 866 36234 ts_small_parse_table_263 868 36370"
  by (simp add: small_simps ts_small_parse_table_263_def)

definition ts_small_parse_table_264 :: "small_group list" where
  "ts_small_parse_table_264 = [
     (36370, 8, [(ACTIONS 3, 1, [anon_sym_SLASH_SLASH]), (ACTIONS 5, 1, [anon_sym_SLASH_STAR]),
       (ACTIONS 7, 1, [anon_sym_SLASH_SLASH_SLASH]), (ACTIONS 9, 1, [sym__block_comment]),
       (ACTIONS 11, 1, [sym__documentation_block_comment]), (STATE 868, 2, [sym_comment,
       sym_documentation_comment]), (ACTIONS 2728, 10, [anon_sym_QMARK, anon_sym_LT, anon_sym_GT,
       anon_sym_PIPE, anon_sym_AMP, anon_sym_GT_GT, anon_sym_SLASH, anon_sym_BANG, anon_sym_DOT,
       anon_sym_QMARK_DOT]), (ACTIONS 2726, 30, [anon_sym_RBRACE, anon_sym_LBRACK,
       anon_sym_COMMA, anon_sym_RBRACK, anon_sym_COLON, anon_sym_LPAREN, anon_sym_RPAREN,
       anon_sym_QMARK_QMARK, sym_equality_operator, anon_sym_LT_EQ, anon_sym_GT_EQ,
       anon_sym_CARET, anon_sym_LT_LT, anon_sym_GT_GT_GT, sym__additive_operator, anon_sym_STAR,
       anon_sym_PERCENT, anon_sym_TILDE_SLASH, anon_sym_is, anon_sym_as, anon_sym_DOT_DOT,
       anon_sym_QMARK_DOT_DOT, anon_sym_SEMI, anon_sym_EQ_GT, anon_sym_when, anon_sym_case,
       anon_sym_else, anon_sym_Function, anon_sym_AMP_AMP, anon_sym_PIPE_PIPE])]),
     (36434, 10, [(ACTIONS 3, 1, [anon_sym_SLASH_SLASH]), (ACTIONS 5, 1,
       [anon_sym_SLASH_STAR]), (ACTIONS 7, 1, [anon_sym_SLASH_SLASH_SLASH]), (ACTIONS 9, 1,
       [sym__block_comment]), (ACTIONS 11, 1, [sym__documentation_block_comment]), (ACTIONS 2001,
       1, [anon_sym_LPAREN]), (STATE 943, 1, [sym_arguments]), (STATE 869, 2, [sym_comment,
       sym_documentation_comment]), (ACTIONS 1686, 10, [anon_sym_QMARK, anon_sym_LT, anon_sym_GT,
       anon_sym_PIPE, anon_sym_AMP, anon_sym_GT_GT, anon_sym_SLASH, anon_sym_BANG, anon_sym_DOT,
       anon_sym_QMARK_DOT]), (ACTIONS 1680, 28, [anon_sym_RBRACE, anon_sym_LBRACK,
       anon_sym_COMMA, anon_sym_RBRACK, anon_sym_COLON, anon_sym_RPAREN, anon_sym_QMARK_QMARK,
       sym_equality_operator, anon_sym_LT_EQ, anon_sym_GT_EQ, anon_sym_CARET, anon_sym_LT_LT,
       anon_sym_GT_GT_GT, sym__additive_operator, anon_sym_STAR, anon_sym_PERCENT,
       anon_sym_TILDE_SLASH, anon_sym_is, anon_sym_as, anon_sym_DOT_DOT, anon_sym_QMARK_DOT_DOT,
       anon_sym_SEMI, anon_sym_EQ_GT, anon_sym_when, anon_sym_case, anon_sym_else,
       anon_sym_AMP_AMP, anon_sym_PIPE_PIPE])])]"

lemma small_run_264: "small_run 868 36370 ts_small_parse_table_264 870 36502"
  by (simp add: small_simps ts_small_parse_table_264_def)

definition ts_small_parse_table_265 :: "small_group list" where
  "ts_small_parse_table_265 = [
     (36502, 8, [(ACTIONS 3, 1, [anon_sym_SLASH_SLASH]), (ACTIONS 5, 1, [anon_sym_SLASH_STAR]),
       (ACTIONS 7, 1, [anon_sym_SLASH_SLASH_SLASH]), (ACTIONS 9, 1, [sym__block_comment]),
       (ACTIONS 11, 1, [sym__documentation_block_comment]), (STATE 870, 2, [sym_comment,
       sym_documentation_comment]), (ACTIONS 1688, 10, [anon_sym_QMARK, anon_sym_LT, anon_sym_GT,
       anon_sym_PIPE, anon_sym_AMP, anon_sym_GT_GT, anon_sym_SLASH, anon_sym_BANG, anon_sym_DOT,
       anon_sym_QMARK_DOT]), (ACTIONS 1690, 30, [anon_sym_LBRACE, anon_sym_RBRACE,
       anon_sym_LBRACK, anon_sym_COMMA, anon_sym_RBRACK, anon_sym_COLON, anon_sym_LPAREN,
       anon_sym_RPAREN, anon_sym_QMARK_QMARK, sym_equality_operator, anon_sym_LT_EQ,
       anon_sym_GT_EQ, anon_sym_CARET, anon_sym_LT_LT, anon_sym_GT_GT_GT, sym__additive_operator,
       anon_sym_STAR, anon_sym_PERCENT, anon_sym_TILDE_SLASH, anon_sym_is, anon_sym_as,
       anon_sym_DOT_DOT, anon_sym_QMARK_DOT_DOT, anon_sym_SEMI, anon_sym_EQ_GT, anon_sym_when,
       anon_sym_case, anon_sym_else, anon_sym_AMP_AMP, anon_sym_PIPE_PIPE])]),
     (36566, 9, [(ACTIONS 3, 1, [anon_sym_SLASH_SLASH]), (ACTIONS 5, 1, [anon_sym_SLASH_STAR]),
       (ACTIONS 7, 1, [anon_sym_SLASH_SLASH_SLASH]), (ACTIONS 9, 1, [sym__block_comment]),
       (ACTIONS 11, 1, [sym__documentation_block_comment]), (ACTIONS 1676, 1,
       [sym_increment_operator]), (STATE 871, 2, [sym_comment, sym_documentation_comment]),
       (ACTIONS 1678, 11, [anon_sym_QMARK, anon_sym_LT, anon_sym_GT, anon_sym_PIPE, anon_sym_AMP,
       anon_sym_GT_GT, sym__additive_operator, anon_sym_SLASH, anon_sym_BANG, anon_sym_DOT,
       anon_sym_QMARK_DOT]), (ACTIONS 1672, 28, [anon_sym_RBRACE, anon_sym_LBRACK,
       anon_sym_COMMA, anon_sym_RBRACK, anon_sym_COLON, anon_sym_LPAREN, anon_sym_RPAREN,
       anon_sym_QMARK_QMARK, sym_equality_operator, anon_sym_LT_EQ, anon_sym_GT_EQ,
       anon_sym_CARET, anon_sym_LT_LT, anon_sym_GT_GT_GT, anon_sym_STAR, anon_sym_PERCENT,
       anon_sym_TILDE_SLASH, anon_sym_is, anon_sym_as, anon_sym_DOT_DOT, anon_sym_QMARK_DOT_DOT,
       anon_sym_SEMI, anon_sym_EQ_GT, anon_sym_when, anon_sym_case, anon_sym_else,
       anon_sym_AMP_AMP, anon_sym_PIPE_PIPE])])]"

lemma small_run_265: "small_run 870 36502 ts_small_parse_table_265 872 36632"
  by (simp add: small_simps ts_small_parse_table_265_def)

definition ts_small_parse_table_266 :: "small_group list" where
  "ts_small_parse_table_266 = [
     (36632, 8, [(ACTIONS 3, 1, [anon_sym_SLASH_SLASH]), (ACTIONS 5, 1, [anon_sym_SLASH_STAR]),
       (ACTIONS 7, 1, [anon_sym_SLASH_SLASH_SLASH]), (ACTIONS 9, 1, [sym__block_comment]),
       (ACTIONS 11, 1, [sym__documentation_block_comment]), (STATE 872, 2, [sym_comment,
       sym_documentation_comment]), (ACTIONS 2555, 10, [anon_sym_QMARK, anon_sym_LT, anon_sym_GT,
       anon_sym_PIPE, anon_sym_AMP, anon_sym_GT_GT, anon_sym_SLASH, anon_sym_BANG, anon_sym_DOT,
       anon_sym_QMARK_DOT]), (ACTIONS 2550, 30, [anon_sym_RBRACE, anon_sym_LBRACK,
       anon_sym_COMMA, anon_sym_RBRACK, anon_sym_COLON, anon_sym_LPAREN, anon_sym_RPAREN,
       anon_sym_QMARK_QMARK, sym_equality_operator, anon_sym_LT_EQ, anon_sym_GT_EQ,
       anon_sym_CARET, anon_sym_LT_LT, anon_sym_GT_GT_GT, sym__additive_operator, anon_sym_STAR,
       anon_sym_PERCENT, anon_sym_TILDE_SLASH, anon_sym_is, anon_sym_as, anon_sym_DOT_DOT,
       anon_sym_QMARK_DOT_DOT, anon_sym_SEMI, anon_sym_EQ_GT, anon_sym_when, anon_sym_case,
       anon_sym_else, anon_sym_Function, anon_sym_AMP_AMP, anon_sym_PIPE_PIPE])]),
     (36696, 9, [(ACTIONS 3, 1, [anon_sym_SLASH_SLASH]), (ACTIONS 5, 1, [anon_sym_SLASH_STAR]),
       (ACTIONS 7, 1, [anon_sym_SLASH_SLASH_SLASH]), (ACTIONS 9, 1, [sym__block_comment]),
       (ACTIONS 11, 1, [sym__documentation_block_comment]), (ACTIONS 1701, 1,
       [sym_increment_operator]), (STATE 873, 2, [sym_comment, sym_documentation_comment]),
       (ACTIONS 1686, 11, [anon_sym_QMARK, anon_sym_LT, anon_sym_GT, anon_sym_PIPE, anon_sym_AMP,
       anon_sym_GT_GT, sym__additive_operator, anon_sym_SLASH, anon_sym_BANG, anon_sym_DOT,
       anon_sym_QMARK_DOT]), (ACTIONS 1680, 28, [anon_sym_RBRACE, anon_sym_LBRACK,
       anon_sym_COMMA, anon_sym_RBRACK, anon_sym_COLON, anon_sym_LPAREN, anon_sym_RPAREN,
       anon_sym_QMARK_QMARK, sym_equality_operator, anon_sym_LT_EQ, anon_sym_GT_EQ,
       anon_sym_CARET, anon_sym_LT_LT, anon_sym_GT_GT_GT, anon_sym_STAR, anon_sym_PERCENT,
       anon_sym_TILDE_SLASH, anon_sym_is, anon_sym_as, anon_sym_DOT_DOT, anon_sym_QMARK_DOT_DOT,
       anon_sym_SEMI, anon_sym_EQ_GT, anon_sym_when, anon_sym_case, anon_sym_else,
       anon_sym_AMP_AMP, anon_sym_PIPE_PIPE])])]"

lemma small_run_266: "small_run 872 36632 ts_small_parse_table_266 874 36762"
  by (simp add: small_simps ts_small_parse_table_266_def)

definition ts_small_parse_table_267 :: "small_group list" where
  "ts_small_parse_table_267 = [
     (36762, 13, [(ACTIONS 3, 1, [anon_sym_SLASH_SLASH]), (ACTIONS 5, 1,
       [anon_sym_SLASH_STAR]), (ACTIONS 7, 1, [anon_sym_SLASH_SLASH_SLASH]), (ACTIONS 9, 1,
       [sym__block_comment]), (ACTIONS 11, 1, [sym__documentation_block_comment]), (ACTIONS 1368,
       1, [anon_sym_LT]), (ACTIONS 2730, 1, [anon_sym_LPAREN]), (STATE 1088, 1,
       [sym_argument_part]), (STATE 1109, 1, [sym_arguments]), (STATE 3052, 1,
       [sym_type_arguments]), (STATE 874, 3, [sym_comment, sym_documentation_comment,
       aux_sym_cascade_section_repeat1]), (ACTIONS 1366, 5, [anon_sym_EQ, anon_sym_QMARK,
       anon_sym_DOT, anon_sym_QMARK_DOT, anon_sym_async]), (ACTIONS 1361, 29, [anon_sym_LBRACE,
       anon_sym_RBRACE, anon_sym_LBRACK, anon_sym_COMMA, anon_sym_RBRACK, anon_sym_COLON,
       anon_sym_RPAREN, anon_sym_PLUS_EQ, anon_sym_DASH_EQ, anon_sym_STAR_EQ, anon_sym_SLASH_EQ,
       anon_sym_PERCENT_EQ, anon_sym_TILDE_SLASH_EQ, anon_sym_LT_LT_EQ, anon_sym_GT_GT_EQ,
       anon_sym_GT_GT_GT_EQ, anon_sym_AMP_EQ, anon_sym_CARET_EQ, anon_sym_PIPE_EQ,
       anon_sym_QMARK_QMARK_EQ, anon_sym_BANG, anon_sym_DOT_DOT, anon_sym_QMARK_DOT_DOT,
       anon_sym_SEMI, anon_sym_EQ_GT, anon_sym_case, anon_sym_else, anon_sym_async_STAR,
       anon_sym_sync_STAR])]),
     (36836, 8, [(ACTIONS 3, 1, [anon_sym_SLASH_SLASH]), (ACTIONS 5, 1, [anon_sym_SLASH_STAR]),
       (ACTIONS 7, 1, [anon_sym_SLASH_SLASH_SLASH]), (ACTIONS 9, 1, [sym__block_comment]),
       (ACTIONS 11, 1, [sym__documentation_block_comment]), (STATE 875, 2, [sym_comment,
       sym_documentation_comment]), (ACTIONS 1663, 11, [anon_sym_QMARK, anon_sym_LT, anon_sym_GT,
       anon_sym_PIPE, anon_sym_AMP, anon_sym_GT_GT, sym__additive_operator, anon_sym_SLASH,
       anon_sym_BANG, anon_sym_DOT, anon_sym_QMARK_DOT]), (ACTIONS 1661, 29, [anon_sym_RBRACE,
       anon_sym_LBRACK, anon_sym_COMMA, anon_sym_RBRACK, anon_sym_COLON, anon_sym_LPAREN,
       anon_sym_RPAREN, anon_sym_QMARK_QMARK, sym_equality_operator, anon_sym_LT_EQ,
       anon_sym_GT_EQ, anon_sym_CARET, anon_sym_LT_LT, anon_sym_GT_GT_GT, anon_sym_STAR,
       anon_sym_PERCENT, anon_sym_TILDE_SLASH, sym_increment_operator, anon_sym_is, anon_sym_as,
       anon_sym_DOT_DOT, anon_sym_QMARK_DOT_DOT, anon_sym_SEMI, anon_sym_EQ_GT, anon_sym_when,
       anon_sym_case, anon_sym_else, anon_sym_AMP_AMP, anon_sym_PIPE_PIPE])])]"

lemma small_run_267: "small_run 874 36762 ts_small_parse_table_267 876 36900"
  by (simp add: small_simps ts_small_parse_table_267_def)

definition ts_small_parse_table_268 :: "small_group list" where
  "ts_small_parse_table_268 = [
     (36900, 8, [(ACTIONS 3, 1, [anon_sym_SLASH_SLASH]), (ACTIONS 5, 1, [anon_sym_SLASH_STAR]),
       (ACTIONS 7, 1, [anon_sym_SLASH_SLASH_SLASH]), (ACTIONS 9, 1, [sym__block_comment]),
       (ACTIONS 11, 1, [sym__documentation_block_comment]), (STATE 876, 2, [sym_comment,
       sym_documentation_comment]), (ACTIONS 1659, 11, [anon_sym_QMARK, anon_sym_LT, anon_sym_GT,
       anon_sym_PIPE, anon_sym_AMP, anon_sym_GT_GT, sym__additive_operator, anon_sym_SLASH,
       anon_sym_BANG, anon_sym_DOT, anon_sym_QMARK_DOT]), (ACTIONS 1657, 29, [anon_sym_RBRACE,
       anon_sym_LBRACK, anon_sym_COMMA, anon_sym_RBRACK, anon_sym_COLON, anon_sym_LPAREN,
       anon_sym_RPAREN, anon_sym_QMARK_QMARK, sym_equality_operator, anon_sym_LT_EQ,
       anon_sym_GT_EQ, anon_sym_CARET, anon_sym_LT_LT, anon_sym_GT_GT_GT, anon_sym_STAR,
       anon_sym_PERCENT, anon_sym_TILDE_SLASH, sym_increment_operator, anon_sym_is, anon_sym_as,
       anon_sym_DOT_DOT, anon_sym_QMARK_DOT_DOT, anon_sym_SEMI, anon_sym_EQ_GT, anon_sym_when,
       anon_sym_case, anon_sym_else, anon_sym_AMP_AMP, anon_sym_PIPE_PIPE])]),
     (36964, 8, [(ACTIONS 3, 1, [anon_sym_SLASH_SLASH]), (ACTIONS 5, 1, [anon_sym_SLASH_STAR]),
       (ACTIONS 7, 1, [anon_sym_SLASH_SLASH_SLASH]), (ACTIONS 9, 1, [sym__block_comment]),
       (ACTIONS 11, 1, [sym__documentation_block_comment]), (STATE 877, 2, [sym_comment,
       sym_documentation_comment]), (ACTIONS 2735, 10, [anon_sym_QMARK, anon_sym_LT, anon_sym_GT,
       anon_sym_PIPE, anon_sym_AMP, anon_sym_GT_GT, anon_sym_SLASH, anon_sym_BANG, anon_sym_DOT,
       anon_sym_QMARK_DOT]), (ACTIONS 2733, 30, [anon_sym_RBRACE, anon_sym_LBRACK,
       anon_sym_COMMA, anon_sym_RBRACK, anon_sym_COLON, anon_sym_LPAREN, anon_sym_RPAREN,
       anon_sym_QMARK_QMARK, sym_equality_operator, anon_sym_LT_EQ, anon_sym_GT_EQ,
       anon_sym_CARET, anon_sym_LT_LT, anon_sym_GT_GT_GT, sym__additive_operator, anon_sym_STAR,
       anon_sym_PERCENT, anon_sym_TILDE_SLASH, anon_sym_is, anon_sym_as, anon_sym_DOT_DOT,
       anon_sym_QMARK_DOT_DOT, anon_sym_SEMI, anon_sym_EQ_GT, anon_sym_when, anon_sym_case,
       anon_sym_else, anon_sym_Function, anon_sym_AMP_AMP, anon_sym_PIPE_PIPE])])]"

lemma small_run_268: "small_run 876 36900 ts_small_parse_table_268 878 37028"
  by (simp add: small_simps ts_small_parse_table_268_def)

definition ts_small_parse_table_269 :: "small_group list" where
  "ts_small_parse_table_269 = [
     (37028, 12, [(ACTIONS 3, 1, [anon_sym_SLASH_SLASH]), (ACTIONS 5, 1,
       [anon_sym_SLASH_STAR]), (ACTIONS 7, 1, [anon_sym_SLASH_SLASH_SLASH]), (ACTIONS 9, 1,
       [sym__block_comment]), (ACTIONS 11, 1, [sym__documentation_block_comment]), (ACTIONS 2724,
       1, [anon_sym_Function]), (STATE 846, 1, [aux_sym__function_type_tails]), (STATE 851, 1,
       [sym__function_builtin_identifier]), (STATE 1071, 1, [sym__function_type_tail]), (STATE
       878, 2, [sym_comment, sym_documentation_comment]), (ACTIONS 2437, 12, [anon_sym_QMARK,
       anon_sym_LT, anon_sym_GT, anon_sym_PIPE, anon_sym_AMP, anon_sym_GT_GT, anon_sym_SLASH,
       anon_sym_BANG, anon_sym_as, anon_sym_DOT, anon_sym_QMARK_DOT, anon_sym_async]), (ACTIONS
       2435, 24, [anon_sym_LBRACE, anon_sym_LBRACK, anon_sym_COMMA, anon_sym_LPAREN,
       anon_sym_QMARK_QMARK, sym_equality_operator, anon_sym_LT_EQ, anon_sym_GT_EQ,
       anon_sym_CARET, anon_sym_LT_LT, anon_sym_GT_GT_GT, sym__additive_operator, anon_sym_STAR,
       anon_sym_PERCENT, anon_sym_TILDE_SLASH, anon_sym_is, anon_sym_DOT_DOT,
       anon_sym_QMARK_DOT_DOT, anon_sym_SEMI, anon_sym_EQ_GT, anon_sym_async_STAR,
       anon_sym_sync_STAR, anon_sym_AMP_AMP, anon_sym_PIPE_PIPE])]),
     (37100, 8, [(ACTIONS 3, 1, [anon_sym_SLASH_SLASH]), (ACTIONS 5, 1, [anon_sym_SLASH_STAR]),
       (ACTIONS 7, 1, [anon_sym_SLASH_SLASH_SLASH]), (ACTIONS 9, 1, [sym__block_comment]),
       (ACTIONS 11, 1, [sym__documentation_block_comment]), (STATE 879, 2, [sym_comment,
       sym_documentation_comment]), (ACTIONS 2739, 10, [anon_sym_QMARK, anon_sym_LT, anon_sym_GT,
       anon_sym_PIPE, anon_sym_AMP, anon_sym_GT_GT, anon_sym_SLASH, anon_sym_BANG, anon_sym_DOT,
       anon_sym_QMARK_DOT]), (ACTIONS 2737, 30, [anon_sym_RBRACE, anon_sym_LBRACK,
       anon_sym_COMMA, anon_sym_RBRACK, anon_sym_COLON, anon_sym_LPAREN, anon_sym_RPAREN,
       anon_sym_QMARK_QMARK, sym_equality_operator, anon_sym_LT_EQ, anon_sym_GT_EQ,
       anon_sym_CARET, anon_sym_LT_LT, anon_sym_GT_GT_GT, sym__additive_operator, anon_sym_STAR,
       anon_sym_PERCENT, anon_sym_TILDE_SLASH, anon_sym_is, anon_sym_as, anon_sym_DOT_DOT,
       anon_sym_QMARK_DOT_DOT, anon_sym_SEMI, anon_sym_EQ_GT, anon_sym_when, anon_sym_case,
       anon_sym_else, anon_sym_Function, anon_sym_AMP_AMP, anon_sym_PIPE_PIPE])])]"

lemma small_run_269: "small_run 878 37028 ts_small_parse_table_269 880 37164"
  by (simp add: small_simps ts_small_parse_table_269_def)

definition ts_small_parse_table_270 :: "small_group list" where
  "ts_small_parse_table_270 = [
     (37164, 10, [(ACTIONS 3, 1, [anon_sym_SLASH_SLASH]), (ACTIONS 5, 1,
       [anon_sym_SLASH_STAR]), (ACTIONS 7, 1, [anon_sym_SLASH_SLASH_SLASH]), (ACTIONS 9, 1,
       [sym__block_comment]), (ACTIONS 11, 1, [sym__documentation_block_comment]), (ACTIONS 2543,
       1, [anon_sym_QMARK]), (STATE 959, 1, [sym_nullable_type]), (STATE 880, 2, [sym_comment,
       sym_documentation_comment]), (ACTIONS 2546, 9, [anon_sym_LT, anon_sym_GT, anon_sym_PIPE,
       anon_sym_AMP, anon_sym_GT_GT, anon_sym_SLASH, anon_sym_BANG, anon_sym_DOT,
       anon_sym_QMARK_DOT]), (ACTIONS 2541, 29, [anon_sym_RBRACE, anon_sym_LBRACK,
       anon_sym_COMMA, anon_sym_RBRACK, anon_sym_COLON, anon_sym_LPAREN, anon_sym_RPAREN,
       anon_sym_QMARK_QMARK, sym_equality_operator, anon_sym_LT_EQ, anon_sym_GT_EQ,
       anon_sym_CARET, anon_sym_LT_LT, anon_sym_GT_GT_GT, sym__additive_operator, anon_sym_STAR,
       anon_sym_PERCENT, anon_sym_TILDE_SLASH, anon_sym_is, anon_sym_as, anon_sym_DOT_DOT,
       anon_sym_QMARK_DOT_DOT, anon_sym_SEMI, anon_sym_EQ_GT, anon_sym_when, anon_sym_case,
       anon_sym_else, anon_sym_AMP_AMP, anon_sym_PIPE_PIPE])]),
     (37232, 8, [(ACTIONS 3, 1, [anon_sym_SLASH_SLASH]), (ACTIONS 5, 1, [anon_sym_SLASH_STAR]),
       (ACTIONS 7, 1, [anon_sym_SLASH_SLASH_SLASH]), (ACTIONS 9, 1, [sym__block_comment]),
       (ACTIONS 11, 1, [sym__documentation_block_comment]), (STATE 881, 2, [sym_comment,
       sym_documentation_comment]), (ACTIONS 2743, 10, [anon_sym_QMARK, anon_sym_LT, anon_sym_GT,
       anon_sym_PIPE, anon_sym_AMP, anon_sym_GT_GT, anon_sym_SLASH, anon_sym_BANG, anon_sym_DOT,
       anon_sym_QMARK_DOT]), (ACTIONS 2741, 30, [anon_sym_RBRACE, anon_sym_LBRACK,
       anon_sym_COMMA, anon_sym_RBRACK, anon_sym_COLON, anon_sym_LPAREN, anon_sym_RPAREN,
       anon_sym_QMARK_QMARK, sym_equality_operator, anon_sym_LT_EQ, anon_sym_GT_EQ,
       anon_sym_CARET, anon_sym_LT_LT, anon_sym_GT_GT_GT, sym__additive_operator, anon_sym_STAR,
       anon_sym_PERCENT, anon_sym_TILDE_SLASH, anon_sym_is, anon_sym_as, anon_sym_DOT_DOT,
       anon_sym_QMARK_DOT_DOT, anon_sym_SEMI, anon_sym_EQ_GT, anon_sym_when, anon_sym_case,
       anon_sym_else, anon_sym_Function, anon_sym_AMP_AMP, anon_sym_PIPE_PIPE])])]"

lemma small_run_270: "small_run 880 37164 ts_small_parse_table_270 882 37296"
  by (simp add: small_simps ts_small_parse_table_270_def)

definition ts_small_parse_table_271 :: "small_group list" where
  "ts_small_parse_table_271 = [
     (37296, 8, [(ACTIONS 3, 1, [anon_sym_SLASH_SLASH]), (ACTIONS 5, 1, [anon_sym_SLASH_STAR]),
       (ACTIONS 7, 1, [anon_sym_SLASH_SLASH_SLASH]), (ACTIONS 9, 1, [sym__block_comment]),
       (ACTIONS 11, 1, [sym__documentation_block_comment]), (STATE 882, 2, [sym_comment,
       sym_documentation_comment]), (ACTIONS 2747, 10, [anon_sym_QMARK, anon_sym_LT, anon_sym_GT,
       anon_sym_PIPE, anon_sym_AMP, anon_sym_GT_GT, anon_sym_SLASH, anon_sym_BANG, anon_sym_DOT,
       anon_sym_QMARK_DOT]), (ACTIONS 2745, 30, [anon_sym_RBRACE, anon_sym_LBRACK,
       anon_sym_COMMA, anon_sym_RBRACK, anon_sym_COLON, anon_sym_LPAREN, anon_sym_RPAREN,
       anon_sym_QMARK_QMARK, sym_equality_operator, anon_sym_LT_EQ, anon_sym_GT_EQ,
       anon_sym_CARET, anon_sym_LT_LT, anon_sym_GT_GT_GT, sym__additive_operator, anon_sym_STAR,
       anon_sym_PERCENT, anon_sym_TILDE_SLASH, anon_sym_is, anon_sym_as, anon_sym_DOT_DOT,
       anon_sym_QMARK_DOT_DOT, anon_sym_SEMI, anon_sym_EQ_GT, anon_sym_when, anon_sym_case,
       anon_sym_else, anon_sym_Function, anon_sym_AMP_AMP, anon_sym_PIPE_PIPE])]),
     (37360, 9, [(ACTIONS 3, 1, [anon_sym_SLASH_SLASH]), (ACTIONS 5, 1, [anon_sym_SLASH_STAR]),
       (ACTIONS 7, 1, [anon_sym_SLASH_SLASH_SLASH]), (ACTIONS 9, 1, [sym__block_comment]),
       (ACTIONS 11, 1, [sym__documentation_block_comment]), (ACTIONS 982, 1, [anon_sym_EQ]),
       (STATE 883, 2, [sym_comment, sym_documentation_comment]), (ACTIONS 984, 10,
       [anon_sym_QMARK, anon_sym_LT, anon_sym_GT, anon_sym_PIPE, anon_sym_AMP, anon_sym_GT_GT,
       anon_sym_SLASH, anon_sym_BANG, anon_sym_DOT, anon_sym_QMARK_DOT]), (ACTIONS 980, 29,
       [anon_sym_RBRACE, anon_sym_LBRACK, anon_sym_COMMA, anon_sym_RBRACK, anon_sym_COLON,
       anon_sym_LPAREN, anon_sym_RPAREN, anon_sym_QMARK_QMARK, sym_equality_operator,
       anon_sym_LT_EQ, anon_sym_GT_EQ, anon_sym_CARET, anon_sym_LT_LT, anon_sym_GT_GT_GT,
       sym__additive_operator, anon_sym_STAR, anon_sym_PERCENT, anon_sym_TILDE_SLASH,
       anon_sym_is, anon_sym_as, anon_sym_DOT_DOT, anon_sym_QMARK_DOT_DOT, anon_sym_SEMI,
       anon_sym_EQ_GT, anon_sym_when, anon_sym_case, anon_sym_else, anon_sym_AMP_AMP,
       anon_sym_PIPE_PIPE])])]"

lemma small_run_271: "small_run 882 37296 ts_small_parse_table_271 884 37426"
  by (simp add: small_simps ts_small_parse_table_271_def)

definition ts_small_parse_table_272 :: "small_group list" where
  "ts_small_parse_table_272 = [
     (37426, 9, [(ACTIONS 3, 1, [anon_sym_SLASH_SLASH]), (ACTIONS 5, 1, [anon_sym_SLASH_STAR]),
       (ACTIONS 7, 1, [anon_sym_SLASH_SLASH_SLASH]), (ACTIONS 9, 1, [sym__block_comment]),
       (ACTIONS 11, 1, [sym__documentation_block_comment]), (STATE 899, 1,
       [aux_sym__if_null_expression]), (STATE 884, 2, [sym_comment, sym_documentation_comment]),
       (ACTIONS 2751, 10, [anon_sym_QMARK, anon_sym_LT, anon_sym_GT, anon_sym_PIPE, anon_sym_AMP,
       anon_sym_GT_GT, anon_sym_SLASH, anon_sym_BANG, anon_sym_DOT, anon_sym_QMARK_DOT]),
       (ACTIONS 2749, 29, [anon_sym_RBRACE, anon_sym_LBRACK, anon_sym_COMMA, anon_sym_RBRACK,
       anon_sym_COLON, anon_sym_LPAREN, anon_sym_RPAREN, anon_sym_QMARK_QMARK,
       sym_equality_operator, anon_sym_LT_EQ, anon_sym_GT_EQ, anon_sym_CARET, anon_sym_LT_LT,
       anon_sym_GT_GT_GT, sym__additive_operator, anon_sym_STAR, anon_sym_PERCENT,
       anon_sym_TILDE_SLASH, anon_sym_is, anon_sym_as, anon_sym_DOT_DOT, anon_sym_QMARK_DOT_DOT,
       anon_sym_SEMI, anon_sym_EQ_GT, anon_sym_when, anon_sym_case, anon_sym_else,
       anon_sym_AMP_AMP, anon_sym_PIPE_PIPE])]),
     (37492, 9, [(ACTIONS 3, 1, [anon_sym_SLASH_SLASH]), (ACTIONS 5, 1, [anon_sym_SLASH_STAR]),
       (ACTIONS 7, 1, [anon_sym_SLASH_SLASH_SLASH]), (ACTIONS 9, 1, [sym__block_comment]),
       (ACTIONS 11, 1, [sym__documentation_block_comment]), (ACTIONS 2753, 1, [anon_sym_AMP]),
       (STATE 885, 3, [sym_comment, sym_documentation_comment,
       aux_sym_bitwise_and_expression_repeat1]), (ACTIONS 1408, 9, [anon_sym_QMARK, anon_sym_LT,
       anon_sym_GT, anon_sym_PIPE, anon_sym_GT_GT, anon_sym_SLASH, anon_sym_BANG, anon_sym_DOT,
       anon_sym_QMARK_DOT]), (ACTIONS 1406, 29, [anon_sym_RBRACE, anon_sym_LBRACK,
       anon_sym_COMMA, anon_sym_RBRACK, anon_sym_COLON, anon_sym_LPAREN, anon_sym_RPAREN,
       anon_sym_QMARK_QMARK, sym_equality_operator, anon_sym_LT_EQ, anon_sym_GT_EQ,
       anon_sym_CARET, anon_sym_LT_LT, anon_sym_GT_GT_GT, sym__additive_operator, anon_sym_STAR,
       anon_sym_PERCENT, anon_sym_TILDE_SLASH, anon_sym_is, anon_sym_as, anon_sym_DOT_DOT,
       anon_sym_QMARK_DOT_DOT, anon_sym_SEMI, anon_sym_EQ_GT, anon_sym_when, anon_sym_case,
       anon_sym_else, anon_sym_AMP_AMP, anon_sym_PIPE_PIPE])])]"

lemma small_run_272: "small_run 884 37426 ts_small_parse_table_272 886 37558"
  by (simp add: small_simps ts_small_parse_table_272_def)

definition ts_small_parse_table_273 :: "small_group list" where
  "ts_small_parse_table_273 = [
     (37558, 9, [(ACTIONS 3, 1, [anon_sym_SLASH_SLASH]), (ACTIONS 5, 1, [anon_sym_SLASH_STAR]),
       (ACTIONS 7, 1, [anon_sym_SLASH_SLASH_SLASH]), (ACTIONS 9, 1, [sym__block_comment]),
       (ACTIONS 11, 1, [sym__documentation_block_comment]), (ACTIONS 2756, 1, [anon_sym_CARET]),
       (STATE 886, 3, [sym_comment, sym_documentation_comment,
       aux_sym_bitwise_xor_expression_repeat1]), (ACTIONS 1397, 10, [anon_sym_QMARK, anon_sym_LT,
       anon_sym_GT, anon_sym_PIPE, anon_sym_AMP, anon_sym_GT_GT, anon_sym_SLASH, anon_sym_BANG,
       anon_sym_DOT, anon_sym_QMARK_DOT]), (ACTIONS 1395, 28, [anon_sym_RBRACE, anon_sym_LBRACK,
       anon_sym_COMMA, anon_sym_RBRACK, anon_sym_COLON, anon_sym_LPAREN, anon_sym_RPAREN,
       anon_sym_QMARK_QMARK, sym_equality_operator, anon_sym_LT_EQ, anon_sym_GT_EQ,
       anon_sym_LT_LT, anon_sym_GT_GT_GT, sym__additive_operator, anon_sym_STAR,
       anon_sym_PERCENT, anon_sym_TILDE_SLASH, anon_sym_is, anon_sym_as, anon_sym_DOT_DOT,
       anon_sym_QMARK_DOT_DOT, anon_sym_SEMI, anon_sym_EQ_GT, anon_sym_when, anon_sym_case,
       anon_sym_else, anon_sym_AMP_AMP, anon_sym_PIPE_PIPE])]),
     (37624, 9, [(ACTIONS 3, 1, [anon_sym_SLASH_SLASH]), (ACTIONS 5, 1, [anon_sym_SLASH_STAR]),
       (ACTIONS 7, 1, [anon_sym_SLASH_SLASH_SLASH]), (ACTIONS 9, 1, [sym__block_comment]),
       (ACTIONS 11, 1, [sym__documentation_block_comment]), (ACTIONS 2759, 1, [anon_sym_PIPE]),
       (STATE 887, 3, [sym_comment, sym_documentation_comment,
       aux_sym_bitwise_or_expression_repeat1]), (ACTIONS 1420, 9, [anon_sym_QMARK, anon_sym_LT,
       anon_sym_GT, anon_sym_AMP, anon_sym_GT_GT, anon_sym_SLASH, anon_sym_BANG, anon_sym_DOT,
       anon_sym_QMARK_DOT]), (ACTIONS 1418, 29, [anon_sym_RBRACE, anon_sym_LBRACK,
       anon_sym_COMMA, anon_sym_RBRACK, anon_sym_COLON, anon_sym_LPAREN, anon_sym_RPAREN,
       anon_sym_QMARK_QMARK, sym_equality_operator, anon_sym_LT_EQ, anon_sym_GT_EQ,
       anon_sym_CARET, anon_sym_LT_LT, anon_sym_GT_GT_GT, sym__additive_operator, anon_sym_STAR,
       anon_sym_PERCENT, anon_sym_TILDE_SLASH, anon_sym_is, anon_sym_as, anon_sym_DOT_DOT,
       anon_sym_QMARK_DOT_DOT, anon_sym_SEMI, anon_sym_EQ_GT, anon_sym_when, anon_sym_case,
       anon_sym_else, anon_sym_AMP_AMP, anon_sym_PIPE_PIPE])])]"

lemma small_run_273: "small_run 886 37558 ts_small_parse_table_273 888 37690"
  by (simp add: small_simps ts_small_parse_table_273_def)

definition ts_small_parse_table_274 :: "small_group list" where
  "ts_small_parse_table_274 = [
     (37690, 9, [(ACTIONS 3, 1, [anon_sym_SLASH_SLASH]), (ACTIONS 5, 1, [anon_sym_SLASH_STAR]),
       (ACTIONS 7, 1, [anon_sym_SLASH_SLASH_SLASH]), (ACTIONS 9, 1, [sym__block_comment]),
       (ACTIONS 11, 1, [sym__documentation_block_comment]), (ACTIONS 2766, 1,
       [anon_sym_Function]), (STATE 888, 2, [sym_comment, sym_documentation_comment]), (ACTIONS
       2764, 10, [anon_sym_QMARK, anon_sym_LT, anon_sym_GT, anon_sym_PIPE, anon_sym_AMP,
       anon_sym_GT_GT, anon_sym_SLASH, anon_sym_BANG, anon_sym_DOT, anon_sym_QMARK_DOT]),
       (ACTIONS 2762, 29, [anon_sym_RBRACE, anon_sym_LBRACK, anon_sym_COMMA, anon_sym_RBRACK,
       anon_sym_COLON, anon_sym_LPAREN, anon_sym_RPAREN, anon_sym_QMARK_QMARK,
       sym_equality_operator, anon_sym_LT_EQ, anon_sym_GT_EQ, anon_sym_CARET, anon_sym_LT_LT,
       anon_sym_GT_GT_GT, sym__additive_operator, anon_sym_STAR, anon_sym_PERCENT,
       anon_sym_TILDE_SLASH, anon_sym_is, anon_sym_as, anon_sym_DOT_DOT, anon_sym_QMARK_DOT_DOT,
       anon_sym_SEMI, anon_sym_EQ_GT, anon_sym_when, anon_sym_case, anon_sym_else,
       anon_sym_AMP_AMP, anon_sym_PIPE_PIPE])]),
     (37756, 8, [(ACTIONS 3, 1, [anon_sym_SLASH_SLASH]), (ACTIONS 5, 1, [anon_sym_SLASH_STAR]),
       (ACTIONS 7, 1, [anon_sym_SLASH_SLASH_SLASH]), (ACTIONS 9, 1, [sym__block_comment]),
       (ACTIONS 11, 1, [sym__documentation_block_comment]), (STATE 889, 2, [sym_comment,
       sym_documentation_comment]), (ACTIONS 2770, 10, [anon_sym_QMARK, anon_sym_LT, anon_sym_GT,
       anon_sym_PIPE, anon_sym_AMP, anon_sym_GT_GT, anon_sym_SLASH, anon_sym_BANG, anon_sym_DOT,
       anon_sym_QMARK_DOT]), (ACTIONS 2768, 30, [anon_sym_RBRACE, anon_sym_LBRACK,
       anon_sym_COMMA, anon_sym_RBRACK, anon_sym_COLON, anon_sym_LPAREN, anon_sym_RPAREN,
       anon_sym_QMARK_QMARK, sym_equality_operator, anon_sym_LT_EQ, anon_sym_GT_EQ,
       anon_sym_CARET, anon_sym_LT_LT, anon_sym_GT_GT_GT, sym__additive_operator, anon_sym_STAR,
       anon_sym_PERCENT, anon_sym_TILDE_SLASH, anon_sym_is, anon_sym_as, anon_sym_DOT_DOT,
       anon_sym_QMARK_DOT_DOT, anon_sym_SEMI, anon_sym_EQ_GT, anon_sym_when, anon_sym_case,
       anon_sym_else, anon_sym_Function, anon_sym_AMP_AMP, anon_sym_PIPE_PIPE])])]"

lemma small_run_274: "small_run 888 37690 ts_small_parse_table_274 890 37820"
  by (simp add: small_simps ts_small_parse_table_274_def)

definition ts_small_parse_table_275 :: "small_group list" where
  "ts_small_parse_table_275 = [
     (37820, 44, [(ACTIONS 3, 1, [anon_sym_SLASH_SLASH]), (ACTIONS 5, 1,
       [anon_sym_SLASH_STAR]), (ACTIONS 7, 1, [anon_sym_SLASH_SLASH_SLASH]), (ACTIONS 9, 1,
       [sym__block_comment]), (ACTIONS 11, 1, [sym__documentation_block_comment]), (ACTIONS 17,
       1, [anon_sym_LPAREN]), (ACTIONS 33, 1, [sym_void_type]), (ACTIONS 35, 1, [anon_sym_var]),
       (ACTIONS 45, 1, [anon_sym_Function]), (ACTIONS 67, 1, [anon_sym_late]), (ACTIONS 143, 1,
       [anon_sym_AT]), (ACTIONS 145, 1, [anon_sym_final]), (ACTIONS 153, 1,
       [anon_sym_covariant]), (ACTIONS 159, 1, [anon_sym_this]), (ACTIONS 161, 1,
       [anon_sym_super]), (ACTIONS 2262, 1, [sym_identifier]), (ACTIONS 2268, 1,
       [sym_const_builtin]), (STATE 1077, 1, [sym__metadata]), (STATE 1308, 1,
       [aux_sym__metadata_repeat1]), (STATE 1361, 1, [sym_annotation]), (STATE 1463, 1,
       [sym__function_builtin_identifier]), (STATE 1530, 1, [sym__type_name]), (STATE 1605, 1,
       [aux_sym__function_type_tails]), (STATE 1704, 1, [sym__function_type_tail]), (STATE 1794,
       1, [sym__covariant]), (STATE 1796, 1, [sym__type_not_function]), (STATE 1805, 1,
       [sym_record_type]), (STATE 1848, 1, [sym_function_type]), (STATE 1896, 1,
       [sym__type_not_void_not_function]), (STATE 1915, 1, [sym__late_builtin]), (STATE 1976, 1,
       [sym_inferred_type]), (STATE 1984, 1, [sym_final_builtin]), (STATE 2464, 1,
       [sym__simple_formal_parameter]), (STATE 2466, 1, [sym__normal_formal_parameter]), (STATE
       2468, 1, [sym__declared_identifier]), (STATE 2557, 1, [sym__final_const_var_or_type]),
       (STATE 2755, 1, [sym__var_or_type]), (STATE 2756, 1, [sym__type]), (STATE 2791, 1,
       [sym__default_formal_parameter]), (STATE 2982, 1, [sym_formal_parameter]), (STATE 3283, 1,
       [sym_this]), (STATE 3288, 1, [sym_super]), (STATE 890, 2, [sym_comment,
       sym_documentation_comment]), (STATE 2465, 3, [sym__function_formal_parameter,
       sym_super_formal_parameter, sym_constructor_param])]),
     (37956, 8, [(ACTIONS 3, 1, [anon_sym_SLASH_SLASH]), (ACTIONS 5, 1, [anon_sym_SLASH_STAR]),
       (ACTIONS 7, 1, [anon_sym_SLASH_SLASH_SLASH]), (ACTIONS 9, 1, [sym__block_comment]),
       (ACTIONS 11, 1, [sym__documentation_block_comment]), (STATE 891, 2, [sym_comment,
       sym_documentation_comment]), (ACTIONS 2774, 10, [anon_sym_QMARK, anon_sym_LT, anon_sym_GT,
       anon_sym_PIPE, anon_sym_AMP, anon_sym_GT_GT, anon_sym_SLASH, anon_sym_BANG, anon_sym_DOT,
       anon_sym_QMARK_DOT]), (ACTIONS 2772, 30, [anon_sym_RBRACE, anon_sym_LBRACK,
       anon_sym_COMMA, anon_sym_RBRACK, anon_sym_COLON, anon_sym_LPAREN, anon_sym_RPAREN,
       anon_sym_QMARK_QMARK, sym_equality_operator, anon_sym_LT_EQ, anon_sym_GT_EQ,
       anon_sym_CARET, anon_sym_LT_LT, anon_sym_GT_GT_GT, sym__additive_operator, anon_sym_STAR,
       anon_sym_PERCENT, anon_sym_TILDE_SLASH, anon_sym_is, anon_sym_as, anon_sym_DOT_DOT,
       anon_sym_QMARK_DOT_DOT, anon_sym_SEMI, anon_sym_EQ_GT, anon_sym_when, anon_sym_case,
       anon_sym_else, anon_sym_Function, anon_sym_AMP_AMP, anon_sym_PIPE_PIPE])])]"

lemma small_run_275: "small_run 890 37820 ts_small_parse_table_275 892 38020"
  by (simp add: small_simps ts_small_parse_table_275_def)

definition ts_small_parse_table_276 :: "small_group list" where
  "ts_small_parse_table_276 = [
     (38020, 8, [(ACTIONS 3, 1, [anon_sym_SLASH_SLASH]), (ACTIONS 5, 1, [anon_sym_SLASH_STAR]),
       (ACTIONS 7, 1, [anon_sym_SLASH_SLASH_SLASH]), (ACTIONS 9, 1, [sym__block_comment]),
       (ACTIONS 11, 1, [sym__documentation_block_comment]), (STATE 892, 2, [sym_comment,
       sym_documentation_comment]), (ACTIONS 2778, 10, [anon_sym_QMARK, anon_sym_LT, anon_sym_GT,
       anon_sym_PIPE, anon_sym_AMP, anon_sym_GT_GT, anon_sym_SLASH, anon_sym_BANG, anon_sym_DOT,
       anon_sym_QMARK_DOT]), (ACTIONS 2776, 30, [anon_sym_RBRACE, anon_sym_LBRACK,
       anon_sym_COMMA, anon_sym_RBRACK, anon_sym_COLON, anon_sym_LPAREN, anon_sym_RPAREN,
       anon_sym_QMARK_QMARK, sym_equality_operator, anon_sym_LT_EQ, anon_sym_GT_EQ,
       anon_sym_CARET, anon_sym_LT_LT, anon_sym_GT_GT_GT, sym__additive_operator, anon_sym_STAR,
       anon_sym_PERCENT, anon_sym_TILDE_SLASH, anon_sym_is, anon_sym_as, anon_sym_DOT_DOT,
       anon_sym_QMARK_DOT_DOT, anon_sym_SEMI, anon_sym_EQ_GT, anon_sym_when, anon_sym_case,
       anon_sym_else, anon_sym_Function, anon_sym_AMP_AMP, anon_sym_PIPE_PIPE])]),
     (38084, 8, [(ACTIONS 3, 1, [anon_sym_SLASH_SLASH]), (ACTIONS 5, 1, [anon_sym_SLASH_STAR]),
       (ACTIONS 7, 1, [anon_sym_SLASH_SLASH_SLASH]), (ACTIONS 9, 1, [sym__block_comment]),
       (ACTIONS 11, 1, [sym__documentation_block_comment]), (STATE 893, 2, [sym_comment,
       sym_documentation_comment]), (ACTIONS 2782, 10, [anon_sym_QMARK, anon_sym_LT, anon_sym_GT,
       anon_sym_PIPE, anon_sym_AMP, anon_sym_GT_GT, anon_sym_SLASH, anon_sym_BANG, anon_sym_DOT,
       anon_sym_QMARK_DOT]), (ACTIONS 2780, 30, [anon_sym_RBRACE, anon_sym_LBRACK,
       anon_sym_COMMA, anon_sym_RBRACK, anon_sym_COLON, anon_sym_LPAREN, anon_sym_RPAREN,
       anon_sym_QMARK_QMARK, sym_equality_operator, anon_sym_LT_EQ, anon_sym_GT_EQ,
       anon_sym_CARET, anon_sym_LT_LT, anon_sym_GT_GT_GT, sym__additive_operator, anon_sym_STAR,
       anon_sym_PERCENT, anon_sym_TILDE_SLASH, anon_sym_is, anon_sym_as, anon_sym_DOT_DOT,
       anon_sym_QMARK_DOT_DOT, anon_sym_SEMI, anon_sym_EQ_GT, anon_sym_when, anon_sym_case,
       anon_sym_else, anon_sym_Function, anon_sym_AMP_AMP, anon_sym_PIPE_PIPE])])]"

lemma small_run_276: "small_run 892 38020 ts_small_parse_table_276 894 38148"
  by (simp add: small_simps ts_small_parse_table_276_def)

definition ts_small_parse_table_277 :: "small_group list" where
  "ts_small_parse_table_277 = [
     (38148, 8, [(ACTIONS 3, 1, [anon_sym_SLASH_SLASH]), (ACTIONS 5, 1, [anon_sym_SLASH_STAR]),
       (ACTIONS 7, 1, [anon_sym_SLASH_SLASH_SLASH]), (ACTIONS 9, 1, [sym__block_comment]),
       (ACTIONS 11, 1, [sym__documentation_block_comment]), (STATE 894, 2, [sym_comment,
       sym_documentation_comment]), (ACTIONS 2572, 10, [anon_sym_QMARK, anon_sym_LT, anon_sym_GT,
       anon_sym_PIPE, anon_sym_AMP, anon_sym_GT_GT, anon_sym_SLASH, anon_sym_BANG, anon_sym_DOT,
       anon_sym_QMARK_DOT]), (ACTIONS 2567, 30, [anon_sym_RBRACE, anon_sym_LBRACK,
       anon_sym_COMMA, anon_sym_RBRACK, anon_sym_COLON, anon_sym_LPAREN, anon_sym_RPAREN,
       anon_sym_QMARK_QMARK, sym_equality_operator, anon_sym_LT_EQ, anon_sym_GT_EQ,
       anon_sym_CARET, anon_sym_LT_LT, anon_sym_GT_GT_GT, sym__additive_operator, anon_sym_STAR,
       anon_sym_PERCENT, anon_sym_TILDE_SLASH, anon_sym_is, anon_sym_as, anon_sym_DOT_DOT,
       anon_sym_QMARK_DOT_DOT, anon_sym_SEMI, anon_sym_EQ_GT, anon_sym_when, anon_sym_case,
       anon_sym_else, anon_sym_Function, anon_sym_AMP_AMP, anon_sym_PIPE_PIPE])]),
     (38212, 13, [(ACTIONS 3, 1, [anon_sym_SLASH_SLASH]), (ACTIONS 5, 1,
       [anon_sym_SLASH_STAR]), (ACTIONS 7, 1, [anon_sym_SLASH_SLASH_SLASH]), (ACTIONS 9, 1,
       [sym__block_comment]), (ACTIONS 11, 1, [sym__documentation_block_comment]), (ACTIONS 2790,
       1, [anon_sym_LT]), (ACTIONS 2794, 1, [anon_sym_DOT]), (STATE 1612, 1,
       [sym__type_dot_identifier]), (ACTIONS 2784, 2, [anon_sym_LBRACK, anon_sym_LPAREN]), (STATE
       895, 2, [sym_comment, sym_documentation_comment]), (ACTIONS 2787, 3, [anon_sym_QMARK,
       anon_sym_BANG, anon_sym_QMARK_DOT]), (ACTIONS 1328, 5, [anon_sym_GT, anon_sym_PIPE,
       anon_sym_AMP, anon_sym_GT_GT, anon_sym_SLASH]), (ACTIONS 1330, 27, [anon_sym_RBRACE,
       anon_sym_COMMA, anon_sym_RBRACK, anon_sym_COLON, anon_sym_RPAREN, anon_sym_QMARK_QMARK,
       sym_equality_operator, anon_sym_LT_EQ, anon_sym_GT_EQ, anon_sym_CARET, anon_sym_LT_LT,
       anon_sym_GT_GT_GT, sym__additive_operator, anon_sym_STAR, anon_sym_PERCENT,
       anon_sym_TILDE_SLASH, anon_sym_is, anon_sym_as, anon_sym_DOT_DOT, anon_sym_QMARK_DOT_DOT,
       anon_sym_SEMI, anon_sym_EQ_GT, anon_sym_when, anon_sym_case, anon_sym_else,
       anon_sym_AMP_AMP, anon_sym_PIPE_PIPE])])]"

lemma small_run_277: "small_run 894 38148 ts_small_parse_table_277 896 38286"
  by (simp add: small_simps ts_small_parse_table_277_def)

definition ts_small_parse_table_278 :: "small_group list" where
  "ts_small_parse_table_278 = [
     (38286, 8, [(ACTIONS 3, 1, [anon_sym_SLASH_SLASH]), (ACTIONS 5, 1, [anon_sym_SLASH_STAR]),
       (ACTIONS 7, 1, [anon_sym_SLASH_SLASH_SLASH]), (ACTIONS 9, 1, [sym__block_comment]),
       (ACTIONS 11, 1, [sym__documentation_block_comment]), (STATE 896, 2, [sym_comment,
       sym_documentation_comment]), (ACTIONS 2801, 10, [anon_sym_QMARK, anon_sym_LT, anon_sym_GT,
       anon_sym_PIPE, anon_sym_AMP, anon_sym_GT_GT, anon_sym_SLASH, anon_sym_BANG, anon_sym_DOT,
       anon_sym_QMARK_DOT]), (ACTIONS 2799, 30, [anon_sym_RBRACE, anon_sym_LBRACK,
       anon_sym_COMMA, anon_sym_RBRACK, anon_sym_COLON, anon_sym_LPAREN, anon_sym_RPAREN,
       anon_sym_QMARK_QMARK, sym_equality_operator, anon_sym_LT_EQ, anon_sym_GT_EQ,
       anon_sym_CARET, anon_sym_LT_LT, anon_sym_GT_GT_GT, sym__additive_operator, anon_sym_STAR,
       anon_sym_PERCENT, anon_sym_TILDE_SLASH, anon_sym_is, anon_sym_as, anon_sym_DOT_DOT,
       anon_sym_QMARK_DOT_DOT, anon_sym_SEMI, anon_sym_EQ_GT, anon_sym_when, anon_sym_case,
       anon_sym_else, anon_sym_Function, anon_sym_AMP_AMP, anon_sym_PIPE_PIPE])]),
     (38350, 8, [(ACTIONS 3, 1, [anon_sym_SLASH_SLASH]), (ACTIONS 5, 1, [anon_sym_SLASH_STAR]),
       (ACTIONS 7, 1, [anon_sym_SLASH_SLASH_SLASH]), (ACTIONS 9, 1, [sym__block_comment]),
       (ACTIONS 11, 1, [sym__documentation_block_comment]), (STATE 897, 2, [sym_comment,
       sym_documentation_comment]), (ACTIONS 2487, 10, [anon_sym_QMARK, anon_sym_LT, anon_sym_GT,
       anon_sym_PIPE, anon_sym_AMP, anon_sym_GT_GT, anon_sym_SLASH, anon_sym_BANG, anon_sym_DOT,
       anon_sym_QMARK_DOT]), (ACTIONS 2479, 30, [anon_sym_RBRACE, anon_sym_LBRACK,
       anon_sym_COMMA, anon_sym_RBRACK, anon_sym_COLON, anon_sym_LPAREN, anon_sym_RPAREN,
       anon_sym_QMARK_QMARK, sym_equality_operator, anon_sym_LT_EQ, anon_sym_GT_EQ,
       anon_sym_CARET, anon_sym_LT_LT, anon_sym_GT_GT_GT, sym__additive_operator, anon_sym_STAR,
       anon_sym_PERCENT, anon_sym_TILDE_SLASH, anon_sym_is, anon_sym_as, anon_sym_DOT_DOT,
       anon_sym_QMARK_DOT_DOT, anon_sym_SEMI, anon_sym_EQ_GT, anon_sym_when, anon_sym_case,
       anon_sym_else, anon_sym_Function, anon_sym_AMP_AMP, anon_sym_PIPE_PIPE])])]"

lemma small_run_278: "small_run 896 38286 ts_small_parse_table_278 898 38414"
  by (simp add: small_simps ts_small_parse_table_278_def)

definition ts_small_parse_table_279 :: "small_group list" where
  "ts_small_parse_table_279 = [
     (38414, 8, [(ACTIONS 3, 1, [anon_sym_SLASH_SLASH]), (ACTIONS 5, 1, [anon_sym_SLASH_STAR]),
       (ACTIONS 7, 1, [anon_sym_SLASH_SLASH_SLASH]), (ACTIONS 9, 1, [sym__block_comment]),
       (ACTIONS 11, 1, [sym__documentation_block_comment]), (STATE 898, 2, [sym_comment,
       sym_documentation_comment]), (ACTIONS 2805, 10, [anon_sym_QMARK, anon_sym_LT, anon_sym_GT,
       anon_sym_PIPE, anon_sym_AMP, anon_sym_GT_GT, anon_sym_SLASH, anon_sym_BANG, anon_sym_DOT,
       anon_sym_QMARK_DOT]), (ACTIONS 2803, 30, [anon_sym_RBRACE, anon_sym_LBRACK,
       anon_sym_COMMA, anon_sym_RBRACK, anon_sym_COLON, anon_sym_LPAREN, anon_sym_RPAREN,
       anon_sym_QMARK_QMARK, sym_equality_operator, anon_sym_LT_EQ, anon_sym_GT_EQ,
       anon_sym_CARET, anon_sym_LT_LT, anon_sym_GT_GT_GT, sym__additive_operator, anon_sym_STAR,
       anon_sym_PERCENT, anon_sym_TILDE_SLASH, anon_sym_is, anon_sym_as, anon_sym_DOT_DOT,
       anon_sym_QMARK_DOT_DOT, anon_sym_SEMI, anon_sym_EQ_GT, anon_sym_when, anon_sym_case,
       anon_sym_else, anon_sym_Function, anon_sym_AMP_AMP, anon_sym_PIPE_PIPE])]),
     (38478, 9, [(ACTIONS 3, 1, [anon_sym_SLASH_SLASH]), (ACTIONS 5, 1, [anon_sym_SLASH_STAR]),
       (ACTIONS 7, 1, [anon_sym_SLASH_SLASH_SLASH]), (ACTIONS 9, 1, [sym__block_comment]),
       (ACTIONS 11, 1, [sym__documentation_block_comment]), (ACTIONS 2809, 1,
       [anon_sym_QMARK_QMARK]), (STATE 899, 3, [aux_sym__if_null_expression, sym_comment,
       sym_documentation_comment]), (ACTIONS 2812, 10, [anon_sym_QMARK, anon_sym_LT, anon_sym_GT,
       anon_sym_PIPE, anon_sym_AMP, anon_sym_GT_GT, anon_sym_SLASH, anon_sym_BANG, anon_sym_DOT,
       anon_sym_QMARK_DOT]), (ACTIONS 2807, 28, [anon_sym_RBRACE, anon_sym_LBRACK,
       anon_sym_COMMA, anon_sym_RBRACK, anon_sym_COLON, anon_sym_LPAREN, anon_sym_RPAREN,
       sym_equality_operator, anon_sym_LT_EQ, anon_sym_GT_EQ, anon_sym_CARET, anon_sym_LT_LT,
       anon_sym_GT_GT_GT, sym__additive_operator, anon_sym_STAR, anon_sym_PERCENT,
       anon_sym_TILDE_SLASH, anon_sym_is, anon_sym_as, anon_sym_DOT_DOT, anon_sym_QMARK_DOT_DOT,
       anon_sym_SEMI, anon_sym_EQ_GT, anon_sym_when, anon_sym_case, anon_sym_else,
       anon_sym_AMP_AMP, anon_sym_PIPE_PIPE])])]"

lemma small_run_279: "small_run 898 38414 ts_small_parse_table_279 900 38544"
  by (simp add: small_simps ts_small_parse_table_279_def)

definition ts_small_parse_table_280 :: "small_group list" where
  "ts_small_parse_table_280 = [
     (38544, 8, [(ACTIONS 3, 1, [anon_sym_SLASH_SLASH]), (ACTIONS 5, 1, [anon_sym_SLASH_STAR]),
       (ACTIONS 7, 1, [anon_sym_SLASH_SLASH_SLASH]), (ACTIONS 9, 1, [sym__block_comment]),
       (ACTIONS 11, 1, [sym__documentation_block_comment]), (STATE 900, 2, [sym_comment,
       sym_documentation_comment]), (ACTIONS 2816, 10, [anon_sym_QMARK, anon_sym_LT, anon_sym_GT,
       anon_sym_PIPE, anon_sym_AMP, anon_sym_GT_GT, anon_sym_SLASH, anon_sym_BANG, anon_sym_DOT,
       anon_sym_QMARK_DOT]), (ACTIONS 2814, 29, [anon_sym_RBRACE, anon_sym_LBRACK,
       anon_sym_COMMA, anon_sym_RBRACK, anon_sym_COLON, anon_sym_LPAREN, anon_sym_RPAREN,
       anon_sym_QMARK_QMARK, sym_equality_operator, anon_sym_LT_EQ, anon_sym_GT_EQ,
       anon_sym_CARET, anon_sym_LT_LT, anon_sym_GT_GT_GT, sym__additive_operator, anon_sym_STAR,
       anon_sym_PERCENT, anon_sym_TILDE_SLASH, anon_sym_is, anon_sym_as, anon_sym_DOT_DOT,
       anon_sym_QMARK_DOT_DOT, anon_sym_SEMI, anon_sym_EQ_GT, anon_sym_when, anon_sym_case,
       anon_sym_else, anon_sym_AMP_AMP, anon_sym_PIPE_PIPE])]),
     (38607, 8, [(ACTIONS 3, 1, [anon_sym_SLASH_SLASH]), (ACTIONS 5, 1, [anon_sym_SLASH_STAR]),
       (ACTIONS 7, 1, [anon_sym_SLASH_SLASH_SLASH]), (ACTIONS 9, 1, [sym__block_comment]),
       (ACTIONS 11, 1, [sym__documentation_block_comment]), (STATE 901, 2, [sym_comment,
       sym_documentation_comment]), (ACTIONS 2820, 10, [anon_sym_QMARK, anon_sym_LT, anon_sym_GT,
       anon_sym_PIPE, anon_sym_AMP, anon_sym_GT_GT, anon_sym_SLASH, anon_sym_BANG, anon_sym_DOT,
       anon_sym_QMARK_DOT]), (ACTIONS 2818, 29, [anon_sym_RBRACE, anon_sym_LBRACK,
       anon_sym_COMMA, anon_sym_RBRACK, anon_sym_COLON, anon_sym_LPAREN, anon_sym_RPAREN,
       anon_sym_QMARK_QMARK, sym_equality_operator, anon_sym_LT_EQ, anon_sym_GT_EQ,
       anon_sym_CARET, anon_sym_LT_LT, anon_sym_GT_GT_GT, sym__additive_operator, anon_sym_STAR,
       anon_sym_PERCENT, anon_sym_TILDE_SLASH, anon_sym_is, anon_sym_as, anon_sym_DOT_DOT,
       anon_sym_QMARK_DOT_DOT, anon_sym_SEMI, anon_sym_EQ_GT, anon_sym_when, anon_sym_case,
       anon_sym_else, anon_sym_AMP_AMP, anon_sym_PIPE_PIPE])])]"

lemma small_run_280: "small_run 900 38544 ts_small_parse_table_280 902 38670"
  by (simp add: small_simps ts_small_parse_table_280_def)

definition ts_small_parse_table_281 :: "small_group list" where
  "ts_small_parse_table_281 = [
     (38670, 13, [(ACTIONS 3, 1, [anon_sym_SLASH_SLASH]), (ACTIONS 5, 1,
       [anon_sym_SLASH_STAR]), (ACTIONS 7, 1, [anon_sym_SLASH_SLASH_SLASH]), (ACTIONS 9, 1,
       [sym__block_comment]), (ACTIONS 11, 1, [sym__documentation_block_comment]), (ACTIONS 2477,
       1, [anon_sym_SLASH]), (STATE 425, 1, [sym_multiplicative_operator]), (STATE 930, 1,
       [aux_sym_multiplicative_expression_repeat1]), (STATE 1416, 1,
       [sym__multiplicative_operator]), (STATE 902, 2, [sym_comment, sym_documentation_comment]),
       (ACTIONS 2475, 3, [anon_sym_STAR, anon_sym_PERCENT, anon_sym_TILDE_SLASH]), (ACTIONS 2473,
       11, [anon_sym_QMARK, anon_sym_LT, anon_sym_GT, anon_sym_PIPE, anon_sym_AMP,
       anon_sym_GT_GT, anon_sym_BANG, anon_sym_as, anon_sym_DOT, anon_sym_QMARK_DOT,
       anon_sym_async]), (ACTIONS 2471, 21, [anon_sym_LBRACE, anon_sym_LBRACK, anon_sym_COMMA,
       anon_sym_LPAREN, anon_sym_QMARK_QMARK, sym_equality_operator, anon_sym_LT_EQ,
       anon_sym_GT_EQ, anon_sym_CARET, anon_sym_LT_LT, anon_sym_GT_GT_GT, sym__additive_operator,
       anon_sym_is, anon_sym_DOT_DOT, anon_sym_QMARK_DOT_DOT, anon_sym_SEMI, anon_sym_EQ_GT,
       anon_sym_async_STAR, anon_sym_sync_STAR, anon_sym_AMP_AMP, anon_sym_PIPE_PIPE])]),
     (38743, 8, [(ACTIONS 3, 1, [anon_sym_SLASH_SLASH]), (ACTIONS 5, 1, [anon_sym_SLASH_STAR]),
       (ACTIONS 7, 1, [anon_sym_SLASH_SLASH_SLASH]), (ACTIONS 9, 1, [sym__block_comment]),
       (ACTIONS 11, 1, [sym__documentation_block_comment]), (STATE 903, 2, [sym_comment,
       sym_documentation_comment]), (ACTIONS 2824, 10, [anon_sym_QMARK, anon_sym_LT, anon_sym_GT,
       anon_sym_PIPE, anon_sym_AMP, anon_sym_GT_GT, anon_sym_SLASH, anon_sym_BANG, anon_sym_DOT,
       anon_sym_QMARK_DOT]), (ACTIONS 2822, 29, [anon_sym_RBRACE, anon_sym_LBRACK,
       anon_sym_COMMA, anon_sym_RBRACK, anon_sym_COLON, anon_sym_LPAREN, anon_sym_RPAREN,
       anon_sym_QMARK_QMARK, sym_equality_operator, anon_sym_LT_EQ, anon_sym_GT_EQ,
       anon_sym_CARET, anon_sym_LT_LT, anon_sym_GT_GT_GT, sym__additive_operator, anon_sym_STAR,
       anon_sym_PERCENT, anon_sym_TILDE_SLASH, anon_sym_is, anon_sym_as, anon_sym_DOT_DOT,
       anon_sym_QMARK_DOT_DOT, anon_sym_SEMI, anon_sym_EQ_GT, anon_sym_when, anon_sym_case,
       anon_sym_else, anon_sym_AMP_AMP, anon_sym_PIPE_PIPE])])]"

lemma small_run_281: "small_run 902 38670 ts_small_parse_table_281 904 38806"
  by (simp add: small_simps ts_small_parse_table_281_def)

definition ts_small_parse_table_282 :: "small_group list" where
  "ts_small_parse_table_282 = [
     (38806, 10, [(ACTIONS 3, 1, [anon_sym_SLASH_SLASH]), (ACTIONS 5, 1,
       [anon_sym_SLASH_STAR]), (ACTIONS 7, 1, [anon_sym_SLASH_SLASH_SLASH]), (ACTIONS 9, 1,
       [sym__block_comment]), (ACTIONS 11, 1, [sym__documentation_block_comment]), (ACTIONS 2826,
       2, [anon_sym_LBRACK, anon_sym_LPAREN]), (STATE 904, 2, [sym_comment,
       sym_documentation_comment]), (ACTIONS 1699, 5, [anon_sym_GT, anon_sym_PIPE, anon_sym_AMP,
       anon_sym_GT_GT, anon_sym_SLASH]), (ACTIONS 2829, 5, [anon_sym_QMARK, anon_sym_LT,
       anon_sym_BANG, anon_sym_DOT, anon_sym_QMARK_DOT]), (ACTIONS 1701, 27, [anon_sym_RBRACE,
       anon_sym_COMMA, anon_sym_RBRACK, anon_sym_COLON, anon_sym_RPAREN, anon_sym_QMARK_QMARK,
       sym_equality_operator, anon_sym_LT_EQ, anon_sym_GT_EQ, anon_sym_CARET, anon_sym_LT_LT,
       anon_sym_GT_GT_GT, sym__additive_operator, anon_sym_STAR, anon_sym_PERCENT,
       anon_sym_TILDE_SLASH, anon_sym_is, anon_sym_as, anon_sym_DOT_DOT, anon_sym_QMARK_DOT_DOT,
       anon_sym_SEMI, anon_sym_EQ_GT, anon_sym_when, anon_sym_case, anon_sym_else,
       anon_sym_AMP_AMP, anon_sym_PIPE_PIPE])]),
     (38873, 8, [(ACTIONS 3, 1, [anon_sym_SLASH_SLASH]), (ACTIONS 5, 1, [anon_sym_SLASH_STAR]),
       (ACTIONS 7, 1, [anon_sym_SLASH_SLASH_SLASH]), (ACTIONS 9, 1, [sym__block_comment]),
       (ACTIONS 11, 1, [sym__documentation_block_comment]), (STATE 905, 2, [sym_comment,
       sym_documentation_comment]), (ACTIONS 1412, 10, [anon_sym_QMARK, anon_sym_LT, anon_sym_GT,
       anon_sym_PIPE, anon_sym_AMP, anon_sym_GT_GT, anon_sym_SLASH, anon_sym_BANG, anon_sym_DOT,
       anon_sym_QMARK_DOT]), (ACTIONS 1410, 29, [anon_sym_RBRACE, anon_sym_LBRACK,
       anon_sym_COMMA, anon_sym_RBRACK, anon_sym_COLON, anon_sym_LPAREN, anon_sym_RPAREN,
       anon_sym_QMARK_QMARK, sym_equality_operator, anon_sym_LT_EQ, anon_sym_GT_EQ,
       anon_sym_CARET, anon_sym_LT_LT, anon_sym_GT_GT_GT, sym__additive_operator, anon_sym_STAR,
       anon_sym_PERCENT, anon_sym_TILDE_SLASH, anon_sym_is, anon_sym_as, anon_sym_DOT_DOT,
       anon_sym_QMARK_DOT_DOT, anon_sym_SEMI, anon_sym_EQ_GT, anon_sym_when, anon_sym_case,
       anon_sym_else, anon_sym_AMP_AMP, anon_sym_PIPE_PIPE])])]"

lemma small_run_282: "small_run 904 38806 ts_small_parse_table_282 906 38936"
  by (simp add: small_simps ts_small_parse_table_282_def)

definition ts_small_parse_table_283 :: "small_group list" where
  "ts_small_parse_table_283 = [
     (38936, 8, [(ACTIONS 3, 1, [anon_sym_SLASH_SLASH]), (ACTIONS 5, 1, [anon_sym_SLASH_STAR]),
       (ACTIONS 7, 1, [anon_sym_SLASH_SLASH_SLASH]), (ACTIONS 9, 1, [sym__block_comment]),
       (ACTIONS 11, 1, [sym__documentation_block_comment]), (STATE 906, 2, [sym_comment,
       sym_documentation_comment]), (ACTIONS 1645, 10, [anon_sym_QMARK, anon_sym_LT, anon_sym_GT,
       anon_sym_PIPE, anon_sym_AMP, anon_sym_GT_GT, anon_sym_SLASH, anon_sym_BANG, anon_sym_DOT,
       anon_sym_QMARK_DOT]), (ACTIONS 1643, 29, [anon_sym_RBRACE, anon_sym_LBRACK,
       anon_sym_COMMA, anon_sym_RBRACK, anon_sym_COLON, anon_sym_LPAREN, anon_sym_RPAREN,
       anon_sym_QMARK_QMARK, sym_equality_operator, anon_sym_LT_EQ, anon_sym_GT_EQ,
       anon_sym_CARET, anon_sym_LT_LT, anon_sym_GT_GT_GT, sym__additive_operator, anon_sym_STAR,
       anon_sym_PERCENT, anon_sym_TILDE_SLASH, anon_sym_is, anon_sym_as, anon_sym_DOT_DOT,
       anon_sym_QMARK_DOT_DOT, anon_sym_SEMI, anon_sym_EQ_GT, anon_sym_when, anon_sym_case,
       anon_sym_else, anon_sym_AMP_AMP, anon_sym_PIPE_PIPE])]),
     (38999, 8, [(ACTIONS 3, 1, [anon_sym_SLASH_SLASH]), (ACTIONS 5, 1, [anon_sym_SLASH_STAR]),
       (ACTIONS 7, 1, [anon_sym_SLASH_SLASH_SLASH]), (ACTIONS 9, 1, [sym__block_comment]),
       (ACTIONS 11, 1, [sym__documentation_block_comment]), (STATE 907, 2, [sym_comment,
       sym_documentation_comment]), (ACTIONS 1670, 10, [anon_sym_QMARK, anon_sym_LT, anon_sym_GT,
       anon_sym_PIPE, anon_sym_AMP, anon_sym_GT_GT, anon_sym_SLASH, anon_sym_BANG, anon_sym_DOT,
       anon_sym_QMARK_DOT]), (ACTIONS 1668, 29, [anon_sym_RBRACE, anon_sym_LBRACK,
       anon_sym_COMMA, anon_sym_RBRACK, anon_sym_COLON, anon_sym_LPAREN, anon_sym_RPAREN,
       anon_sym_QMARK_QMARK, sym_equality_operator, anon_sym_LT_EQ, anon_sym_GT_EQ,
       anon_sym_CARET, anon_sym_LT_LT, anon_sym_GT_GT_GT, sym__additive_operator, anon_sym_STAR,
       anon_sym_PERCENT, anon_sym_TILDE_SLASH, anon_sym_is, anon_sym_as, anon_sym_DOT_DOT,
       anon_sym_QMARK_DOT_DOT, anon_sym_SEMI, anon_sym_EQ_GT, anon_sym_when, anon_sym_case,
       anon_sym_else, anon_sym_AMP_AMP, anon_sym_PIPE_PIPE])])]"

lemma small_run_283: "small_run 906 38936 ts_small_parse_table_283 908 39062"
  by (simp add: small_simps ts_small_parse_table_283_def)

definition ts_small_parse_table_284 :: "small_group list" where
  "ts_small_parse_table_284 = [
     (39062, 8, [(ACTIONS 3, 1, [anon_sym_SLASH_SLASH]), (ACTIONS 5, 1, [anon_sym_SLASH_STAR]),
       (ACTIONS 7, 1, [anon_sym_SLASH_SLASH_SLASH]), (ACTIONS 9, 1, [sym__block_comment]),
       (ACTIONS 11, 1, [sym__documentation_block_comment]), (STATE 908, 2, [sym_comment,
       sym_documentation_comment]), (ACTIONS 1277, 10, [anon_sym_QMARK, anon_sym_LT, anon_sym_GT,
       anon_sym_PIPE, anon_sym_AMP, anon_sym_GT_GT, anon_sym_SLASH, anon_sym_BANG, anon_sym_DOT,
       anon_sym_QMARK_DOT]), (ACTIONS 1257, 29, [anon_sym_RBRACE, anon_sym_LBRACK,
       anon_sym_COMMA, anon_sym_RBRACK, anon_sym_COLON, anon_sym_LPAREN, anon_sym_RPAREN,
       anon_sym_QMARK_QMARK, sym_equality_operator, anon_sym_LT_EQ, anon_sym_GT_EQ,
       anon_sym_CARET, anon_sym_LT_LT, anon_sym_GT_GT_GT, sym__additive_operator, anon_sym_STAR,
       anon_sym_PERCENT, anon_sym_TILDE_SLASH, anon_sym_is, anon_sym_as, anon_sym_DOT_DOT,
       anon_sym_QMARK_DOT_DOT, anon_sym_SEMI, anon_sym_EQ_GT, anon_sym_when, anon_sym_case,
       anon_sym_else, anon_sym_AMP_AMP, anon_sym_PIPE_PIPE])]),
     (39125, 8, [(ACTIONS 3, 1, [anon_sym_SLASH_SLASH]), (ACTIONS 5, 1, [anon_sym_SLASH_STAR]),
       (ACTIONS 7, 1, [anon_sym_SLASH_SLASH_SLASH]), (ACTIONS 9, 1, [sym__block_comment]),
       (ACTIONS 11, 1, [sym__documentation_block_comment]), (STATE 909, 2, [sym_comment,
       sym_documentation_comment]), (ACTIONS 2676, 10, [anon_sym_QMARK, anon_sym_LT, anon_sym_GT,
       anon_sym_PIPE, anon_sym_AMP, anon_sym_GT_GT, anon_sym_SLASH, anon_sym_BANG, anon_sym_DOT,
       anon_sym_QMARK_DOT]), (ACTIONS 2672, 29, [anon_sym_RBRACE, anon_sym_LBRACK,
       anon_sym_COMMA, anon_sym_RBRACK, anon_sym_COLON, anon_sym_LPAREN, anon_sym_RPAREN,
       anon_sym_QMARK_QMARK, sym_equality_operator, anon_sym_LT_EQ, anon_sym_GT_EQ,
       anon_sym_CARET, anon_sym_LT_LT, anon_sym_GT_GT_GT, sym__additive_operator, anon_sym_STAR,
       anon_sym_PERCENT, anon_sym_TILDE_SLASH, anon_sym_is, anon_sym_as, anon_sym_DOT_DOT,
       anon_sym_QMARK_DOT_DOT, anon_sym_SEMI, anon_sym_EQ_GT, anon_sym_when, anon_sym_case,
       anon_sym_else, anon_sym_AMP_AMP, anon_sym_PIPE_PIPE])])]"

lemma small_run_284: "small_run 908 39062 ts_small_parse_table_284 910 39188"
  by (simp add: small_simps ts_small_parse_table_284_def)

definition ts_small_parse_table_285 :: "small_group list" where
  "ts_small_parse_table_285 = [
     (39188, 43, [(ACTIONS 3, 1, [anon_sym_SLASH_SLASH]), (ACTIONS 5, 1,
       [anon_sym_SLASH_STAR]), (ACTIONS 7, 1, [anon_sym_SLASH_SLASH_SLASH]), (ACTIONS 9, 1,
       [sym__block_comment]), (ACTIONS 11, 1, [sym__documentation_block_comment]), (ACTIONS 17,
       1, [anon_sym_LPAREN]), (ACTIONS 33, 1, [sym_void_type]), (ACTIONS 35, 1, [anon_sym_var]),
       (ACTIONS 45, 1, [anon_sym_Function]), (ACTIONS 67, 1, [anon_sym_late]), (ACTIONS 143, 1,
       [anon_sym_AT]), (ACTIONS 145, 1, [anon_sym_final]), (ACTIONS 153, 1,
       [anon_sym_covariant]), (ACTIONS 159, 1, [anon_sym_this]), (ACTIONS 161, 1,
       [anon_sym_super]), (ACTIONS 2262, 1, [sym_identifier]), (ACTIONS 2268, 1,
       [sym_const_builtin]), (STATE 1077, 1, [sym__metadata]), (STATE 1308, 1,
       [aux_sym__metadata_repeat1]), (STATE 1361, 1, [sym_annotation]), (STATE 1463, 1,
       [sym__function_builtin_identifier]), (STATE 1530, 1, [sym__type_name]), (STATE 1605, 1,
       [aux_sym__function_type_tails]), (STATE 1704, 1, [sym__function_type_tail]), (STATE 1794,
       1, [sym__covariant]), (STATE 1796, 1, [sym__type_not_function]), (STATE 1805, 1,
       [sym_record_type]), (STATE 1848, 1, [sym_function_type]), (STATE 1896, 1,
       [sym__type_not_void_not_function]), (STATE 1915, 1, [sym__late_builtin]), (STATE 1976, 1,
       [sym_inferred_type]), (STATE 1984, 1, [sym_final_builtin]), (STATE 2464, 1,
       [sym__simple_formal_parameter]), (STATE 2466, 1, [sym__normal_formal_parameter]), (STATE
       2468, 1, [sym__declared_identifier]), (STATE 2557, 1, [sym__final_const_var_or_type]),
       (STATE 2628, 1, [sym_formal_parameter]), (STATE 2755, 1, [sym__var_or_type]), (STATE 2756,
       1, [sym__type]), (STATE 3283, 1, [sym_this]), (STATE 3288, 1, [sym_super]), (STATE 910, 2,
       [sym_comment, sym_documentation_comment]), (STATE 2465, 3,
       [sym__function_formal_parameter, sym_super_formal_parameter, sym_constructor_param])]),
     (39321, 8, [(ACTIONS 3, 1, [anon_sym_SLASH_SLASH]), (ACTIONS 5, 1, [anon_sym_SLASH_STAR]),
       (ACTIONS 7, 1, [anon_sym_SLASH_SLASH_SLASH]), (ACTIONS 9, 1, [sym__block_comment]),
       (ACTIONS 11, 1, [sym__documentation_block_comment]), (STATE 911, 2, [sym_comment,
       sym_documentation_comment]), (ACTIONS 2834, 10, [anon_sym_QMARK, anon_sym_LT, anon_sym_GT,
       anon_sym_PIPE, anon_sym_AMP, anon_sym_GT_GT, anon_sym_SLASH, anon_sym_BANG, anon_sym_DOT,
       anon_sym_QMARK_DOT]), (ACTIONS 2832, 29, [anon_sym_RBRACE, anon_sym_LBRACK,
       anon_sym_COMMA, anon_sym_RBRACK, anon_sym_COLON, anon_sym_LPAREN, anon_sym_RPAREN,
       anon_sym_QMARK_QMARK, sym_equality_operator, anon_sym_LT_EQ, anon_sym_GT_EQ,
       anon_sym_CARET, anon_sym_LT_LT, anon_sym_GT_GT_GT, sym__additive_operator, anon_sym_STAR,
       anon_sym_PERCENT, anon_sym_TILDE_SLASH, anon_sym_is, anon_sym_as, anon_sym_DOT_DOT,
       anon_sym_QMARK_DOT_DOT, anon_sym_SEMI, anon_sym_EQ_GT, anon_sym_when, anon_sym_case,
       anon_sym_else, anon_sym_AMP_AMP, anon_sym_PIPE_PIPE])])]"

lemma small_run_285: "small_run 910 39188 ts_small_parse_table_285 912 39384"
  by (simp add: small_simps ts_small_parse_table_285_def)

definition ts_small_parse_table_286 :: "small_group list" where
  "ts_small_parse_table_286 = [
     (39384, 8, [(ACTIONS 3, 1, [anon_sym_SLASH_SLASH]), (ACTIONS 5, 1, [anon_sym_SLASH_STAR]),
       (ACTIONS 7, 1, [anon_sym_SLASH_SLASH_SLASH]), (ACTIONS 9, 1, [sym__block_comment]),
       (ACTIONS 11, 1, [sym__documentation_block_comment]), (STATE 912, 2, [sym_comment,
       sym_documentation_comment]), (ACTIONS 2838, 10, [anon_sym_QMARK, anon_sym_LT, anon_sym_GT,
       anon_sym_PIPE, anon_sym_AMP, anon_sym_GT_GT, anon_sym_SLASH, anon_sym_BANG, anon_sym_DOT,
       anon_sym_QMARK_DOT]), (ACTIONS 2836, 29, [anon_sym_RBRACE, anon_sym_LBRACK,
       anon_sym_COMMA, anon_sym_RBRACK, anon_sym_COLON, anon_sym_LPAREN, anon_sym_RPAREN,
       anon_sym_QMARK_QMARK, sym_equality_operator, anon_sym_LT_EQ, anon_sym_GT_EQ,
       anon_sym_CARET, anon_sym_LT_LT, anon_sym_GT_GT_GT, sym__additive_operator, anon_sym_STAR,
       anon_sym_PERCENT, anon_sym_TILDE_SLASH, anon_sym_is, anon_sym_as, anon_sym_DOT_DOT,
       anon_sym_QMARK_DOT_DOT, anon_sym_SEMI, anon_sym_EQ_GT, anon_sym_when, anon_sym_case,
       anon_sym_else, anon_sym_AMP_AMP, anon_sym_PIPE_PIPE])]),
     (39447, 8, [(ACTIONS 3, 1, [anon_sym_SLASH_SLASH]), (ACTIONS 5, 1, [anon_sym_SLASH_STAR]),
       (ACTIONS 7, 1, [anon_sym_SLASH_SLASH_SLASH]), (ACTIONS 9, 1, [sym__block_comment]),
       (ACTIONS 11, 1, [sym__documentation_block_comment]), (STATE 913, 2, [sym_comment,
       sym_documentation_comment]), (ACTIONS 2842, 10, [anon_sym_QMARK, anon_sym_LT, anon_sym_GT,
       anon_sym_PIPE, anon_sym_AMP, anon_sym_GT_GT, anon_sym_SLASH, anon_sym_BANG, anon_sym_DOT,
       anon_sym_QMARK_DOT]), (ACTIONS 2840, 29, [anon_sym_RBRACE, anon_sym_LBRACK,
       anon_sym_COMMA, anon_sym_RBRACK, anon_sym_COLON, anon_sym_LPAREN, anon_sym_RPAREN,
       anon_sym_QMARK_QMARK, sym_equality_operator, anon_sym_LT_EQ, anon_sym_GT_EQ,
       anon_sym_CARET, anon_sym_LT_LT, anon_sym_GT_GT_GT, sym__additive_operator, anon_sym_STAR,
       anon_sym_PERCENT, anon_sym_TILDE_SLASH, anon_sym_is, anon_sym_as, anon_sym_DOT_DOT,
       anon_sym_QMARK_DOT_DOT, anon_sym_SEMI, anon_sym_EQ_GT, anon_sym_when, anon_sym_case,
       anon_sym_else, anon_sym_AMP_AMP, anon_sym_PIPE_PIPE])])]"

lemma small_run_286: "small_run 912 39384 ts_small_parse_table_286 914 39510"
  by (simp add: small_simps ts_small_parse_table_286_def)

definition ts_small_parse_table_287 :: "small_group list" where
  "ts_small_parse_table_287 = [
     (39510, 8, [(ACTIONS 3, 1, [anon_sym_SLASH_SLASH]), (ACTIONS 5, 1, [anon_sym_SLASH_STAR]),
       (ACTIONS 7, 1, [anon_sym_SLASH_SLASH_SLASH]), (ACTIONS 9, 1, [sym__block_comment]),
       (ACTIONS 11, 1, [sym__documentation_block_comment]), (STATE 914, 2, [sym_comment,
       sym_documentation_comment]), (ACTIONS 2846, 10, [anon_sym_QMARK, anon_sym_LT, anon_sym_GT,
       anon_sym_PIPE, anon_sym_AMP, anon_sym_GT_GT, anon_sym_SLASH, anon_sym_BANG, anon_sym_DOT,
       anon_sym_QMARK_DOT]), (ACTIONS 2844, 29, [anon_sym_RBRACE, anon_sym_LBRACK,
       anon_sym_COMMA, anon_sym_RBRACK, anon_sym_COLON, anon_sym_LPAREN, anon_sym_RPAREN,
       anon_sym_QMARK_QMARK, sym_equality_operator, anon_sym_LT_EQ, anon_sym_GT_EQ,
       anon_sym_CARET, anon_sym_LT_LT, anon_sym_GT_GT_GT, sym__additive_operator, anon_sym_STAR,
       anon_sym_PERCENT, anon_sym_TILDE_SLASH, anon_sym_is, anon_sym_as, anon_sym_DOT_DOT,
       anon_sym_QMARK_DOT_DOT, anon_sym_SEMI, anon_sym_EQ_GT, anon_sym_when, anon_sym_case,
       anon_sym_else, anon_sym_AMP_AMP, anon_sym_PIPE_PIPE])]),
     (39573, 8, [(ACTIONS 3, 1, [anon_sym_SLASH_SLASH]), (ACTIONS 5, 1, [anon_sym_SLASH_STAR]),
       (ACTIONS 7, 1, [anon_sym_SLASH_SLASH_SLASH]), (ACTIONS 9, 1, [sym__block_comment]),
       (ACTIONS 11, 1, [sym__documentation_block_comment]), (STATE 915, 2, [sym_comment,
       sym_documentation_comment]), (ACTIONS 2661, 10, [anon_sym_QMARK, anon_sym_LT, anon_sym_GT,
       anon_sym_PIPE, anon_sym_AMP, anon_sym_GT_GT, anon_sym_SLASH, anon_sym_BANG, anon_sym_DOT,
       anon_sym_QMARK_DOT]), (ACTIONS 2657, 29, [anon_sym_RBRACE, anon_sym_LBRACK,
       anon_sym_COMMA, anon_sym_RBRACK, anon_sym_COLON, anon_sym_LPAREN, anon_sym_RPAREN,
       anon_sym_QMARK_QMARK, sym_equality_operator, anon_sym_LT_EQ, anon_sym_GT_EQ,
       anon_sym_CARET, anon_sym_LT_LT, anon_sym_GT_GT_GT, sym__additive_operator, anon_sym_STAR,
       anon_sym_PERCENT, anon_sym_TILDE_SLASH, anon_sym_is, anon_sym_as, anon_sym_DOT_DOT,
       anon_sym_QMARK_DOT_DOT, anon_sym_SEMI, anon_sym_EQ_GT, anon_sym_when, anon_sym_case,
       anon_sym_else, anon_sym_AMP_AMP, anon_sym_PIPE_PIPE])])]"

lemma small_run_287: "small_run 914 39510 ts_small_parse_table_287 916 39636"
  by (simp add: small_simps ts_small_parse_table_287_def)

definition ts_small_parse_table_288 :: "small_group list" where
  "ts_small_parse_table_288 = [
     (39636, 8, [(ACTIONS 3, 1, [anon_sym_SLASH_SLASH]), (ACTIONS 5, 1, [anon_sym_SLASH_STAR]),
       (ACTIONS 7, 1, [anon_sym_SLASH_SLASH_SLASH]), (ACTIONS 9, 1, [sym__block_comment]),
       (ACTIONS 11, 1, [sym__documentation_block_comment]), (STATE 916, 2, [sym_comment,
       sym_documentation_comment]), (ACTIONS 2850, 10, [anon_sym_QMARK, anon_sym_LT, anon_sym_GT,
       anon_sym_PIPE, anon_sym_AMP, anon_sym_GT_GT, anon_sym_SLASH, anon_sym_BANG, anon_sym_DOT,
       anon_sym_QMARK_DOT]), (ACTIONS 2848, 29, [anon_sym_RBRACE, anon_sym_LBRACK,
       anon_sym_COMMA, anon_sym_RBRACK, anon_sym_COLON, anon_sym_LPAREN, anon_sym_RPAREN,
       anon_sym_QMARK_QMARK, sym_equality_operator, anon_sym_LT_EQ, anon_sym_GT_EQ,
       anon_sym_CARET, anon_sym_LT_LT, anon_sym_GT_GT_GT, sym__additive_operator, anon_sym_STAR,
       anon_sym_PERCENT, anon_sym_TILDE_SLASH, anon_sym_is, anon_sym_as, anon_sym_DOT_DOT,
       anon_sym_QMARK_DOT_DOT, anon_sym_SEMI, anon_sym_EQ_GT, anon_sym_when, anon_sym_case,
       anon_sym_else, anon_sym_AMP_AMP, anon_sym_PIPE_PIPE])]),
     (39699, 8, [(ACTIONS 3, 1, [anon_sym_SLASH_SLASH]), (ACTIONS 5, 1, [anon_sym_SLASH_STAR]),
       (ACTIONS 7, 1, [anon_sym_SLASH_SLASH_SLASH]), (ACTIONS 9, 1, [sym__block_comment]),
       (ACTIONS 11, 1, [sym__documentation_block_comment]), (STATE 917, 2, [sym_comment,
       sym_documentation_comment]), (ACTIONS 2854, 10, [anon_sym_QMARK, anon_sym_LT, anon_sym_GT,
       anon_sym_PIPE, anon_sym_AMP, anon_sym_GT_GT, anon_sym_SLASH, anon_sym_BANG, anon_sym_DOT,
       anon_sym_QMARK_DOT]), (ACTIONS 2852, 29, [anon_sym_RBRACE, anon_sym_LBRACK,
       anon_sym_COMMA, anon_sym_RBRACK, anon_sym_COLON, anon_sym_LPAREN, anon_sym_RPAREN,
       anon_sym_QMARK_QMARK, sym_equality_operator, anon_sym_LT_EQ, anon_sym_GT_EQ,
       anon_sym_CARET, anon_sym_LT_LT, anon_sym_GT_GT_GT, sym__additive_operator, anon_sym_STAR,
       anon_sym_PERCENT, anon_sym_TILDE_SLASH, anon_sym_is, anon_sym_as, anon_sym_DOT_DOT,
       anon_sym_QMARK_DOT_DOT, anon_sym_SEMI, anon_sym_EQ_GT, anon_sym_when, anon_sym_case,
       anon_sym_else, anon_sym_AMP_AMP, anon_sym_PIPE_PIPE])])]"

lemma small_run_288: "small_run 916 39636 ts_small_parse_table_288 918 39762"
  by (simp add: small_simps ts_small_parse_table_288_def)

definition ts_small_parse_table_289 :: "small_group list" where
  "ts_small_parse_table_289 = [
     (39762, 8, [(ACTIONS 3, 1, [anon_sym_SLASH_SLASH]), (ACTIONS 5, 1, [anon_sym_SLASH_STAR]),
       (ACTIONS 7, 1, [anon_sym_SLASH_SLASH_SLASH]), (ACTIONS 9, 1, [sym__block_comment]),
       (ACTIONS 11, 1, [sym__documentation_block_comment]), (STATE 918, 2, [sym_comment,
       sym_documentation_comment]), (ACTIONS 1881, 10, [anon_sym_QMARK, anon_sym_LT, anon_sym_GT,
       anon_sym_PIPE, anon_sym_AMP, anon_sym_GT_GT, anon_sym_SLASH, anon_sym_BANG, anon_sym_DOT,
       anon_sym_QMARK_DOT]), (ACTIONS 1879, 29, [anon_sym_RBRACE, anon_sym_LBRACK,
       anon_sym_COMMA, anon_sym_RBRACK, anon_sym_COLON, anon_sym_LPAREN, anon_sym_RPAREN,
       anon_sym_QMARK_QMARK, sym_equality_operator, anon_sym_LT_EQ, anon_sym_GT_EQ,
       anon_sym_CARET, anon_sym_LT_LT, anon_sym_GT_GT_GT, sym__additive_operator, anon_sym_STAR,
       anon_sym_PERCENT, anon_sym_TILDE_SLASH, anon_sym_is, anon_sym_as, anon_sym_DOT_DOT,
       anon_sym_QMARK_DOT_DOT, anon_sym_SEMI, anon_sym_EQ_GT, anon_sym_when, anon_sym_case,
       anon_sym_else, anon_sym_AMP_AMP, anon_sym_PIPE_PIPE])]),
     (39825, 43, [(ACTIONS 3, 1, [anon_sym_SLASH_SLASH]), (ACTIONS 5, 1,
       [anon_sym_SLASH_STAR]), (ACTIONS 7, 1, [anon_sym_SLASH_SLASH_SLASH]), (ACTIONS 9, 1,
       [sym__block_comment]), (ACTIONS 11, 1, [sym__documentation_block_comment]), (ACTIONS 17,
       1, [anon_sym_LPAREN]), (ACTIONS 33, 1, [sym_void_type]), (ACTIONS 35, 1, [anon_sym_var]),
       (ACTIONS 45, 1, [anon_sym_Function]), (ACTIONS 67, 1, [anon_sym_late]), (ACTIONS 143, 1,
       [anon_sym_AT]), (ACTIONS 145, 1, [anon_sym_final]), (ACTIONS 153, 1,
       [anon_sym_covariant]), (ACTIONS 159, 1, [anon_sym_this]), (ACTIONS 161, 1,
       [anon_sym_super]), (ACTIONS 2262, 1, [sym_identifier]), (ACTIONS 2268, 1,
       [sym_const_builtin]), (STATE 1077, 1, [sym__metadata]), (STATE 1308, 1,
       [aux_sym__metadata_repeat1]), (STATE 1361, 1, [sym_annotation]), (STATE 1463, 1,
       [sym__function_builtin_identifier]), (STATE 1530, 1, [sym__type_name]), (STATE 1605, 1,
       [aux_sym__function_type_tails]), (STATE 1704, 1, [sym__function_type_tail]), (STATE 1794,
       1, [sym__covariant]), (STATE 1796, 1, [sym__type_not_function]), (STATE 1805, 1,
       [sym_record_type]), (STATE 1848, 1, [sym_function_type]), (STATE 1896, 1,
       [sym__type_not_void_not_function]), (STATE 1915, 1, [sym__late_builtin]), (STATE 1976, 1,
       [sym_inferred_type]), (STATE 1984, 1, [sym_final_builtin]), (STATE 2464, 1,
       [sym__simple_formal_parameter]), (STATE 2466, 1, [sym__normal_formal_parameter]), (STATE
       2468, 1, [sym__declared_identifier]), (STATE 2557, 1, [sym__final_const_var_or_type]),
       (STATE 2662, 1, [sym_formal_parameter]), (STATE 2755, 1, [sym__var_or_type]), (STATE 2756,
       1, [sym__type]), (STATE 3283, 1, [sym_this]), (STATE 3288, 1, [sym_super]), (STATE 919, 2,
       [sym_comment, sym_documentation_comment]), (STATE 2465, 3,
       [sym__function_formal_parameter, sym_super_formal_parameter, sym_constructor_param])])]"

lemma small_run_289: "small_run 918 39762 ts_small_parse_table_289 920 39958"
  by (simp add: small_simps ts_small_parse_table_289_def)

definition ts_small_parse_table_290 :: "small_group list" where
  "ts_small_parse_table_290 = [
     (39958, 10, [(ACTIONS 3, 1, [anon_sym_SLASH_SLASH]), (ACTIONS 5, 1,
       [anon_sym_SLASH_STAR]), (ACTIONS 7, 1, [anon_sym_SLASH_SLASH_SLASH]), (ACTIONS 9, 1,
       [sym__block_comment]), (ACTIONS 11, 1, [sym__documentation_block_comment]), (ACTIONS 2856,
       2, [anon_sym_LBRACK, anon_sym_LPAREN]), (STATE 920, 2, [sym_comment,
       sym_documentation_comment]), (ACTIONS 1674, 5, [anon_sym_GT, anon_sym_PIPE, anon_sym_AMP,
       anon_sym_GT_GT, anon_sym_SLASH]), (ACTIONS 2859, 5, [anon_sym_QMARK, anon_sym_LT,
       anon_sym_BANG, anon_sym_DOT, anon_sym_QMARK_DOT]), (ACTIONS 1676, 27, [anon_sym_RBRACE,
       anon_sym_COMMA, anon_sym_RBRACK, anon_sym_COLON, anon_sym_RPAREN, anon_sym_QMARK_QMARK,
       sym_equality_operator, anon_sym_LT_EQ, anon_sym_GT_EQ, anon_sym_CARET, anon_sym_LT_LT,
       anon_sym_GT_GT_GT, sym__additive_operator, anon_sym_STAR, anon_sym_PERCENT,
       anon_sym_TILDE_SLASH, anon_sym_is, anon_sym_as, anon_sym_DOT_DOT, anon_sym_QMARK_DOT_DOT,
       anon_sym_SEMI, anon_sym_EQ_GT, anon_sym_when, anon_sym_case, anon_sym_else,
       anon_sym_AMP_AMP, anon_sym_PIPE_PIPE])]),
     (40025, 8, [(ACTIONS 3, 1, [anon_sym_SLASH_SLASH]), (ACTIONS 5, 1, [anon_sym_SLASH_STAR]),
       (ACTIONS 7, 1, [anon_sym_SLASH_SLASH_SLASH]), (ACTIONS 9, 1, [sym__block_comment]),
       (ACTIONS 11, 1, [sym__documentation_block_comment]), (STATE 921, 2, [sym_comment,
       sym_documentation_comment]), (ACTIONS 2864, 10, [anon_sym_QMARK, anon_sym_LT, anon_sym_GT,
       anon_sym_PIPE, anon_sym_AMP, anon_sym_GT_GT, anon_sym_SLASH, anon_sym_BANG, anon_sym_DOT,
       anon_sym_QMARK_DOT]), (ACTIONS 2862, 29, [anon_sym_RBRACE, anon_sym_LBRACK,
       anon_sym_COMMA, anon_sym_RBRACK, anon_sym_COLON, anon_sym_LPAREN, anon_sym_RPAREN,
       anon_sym_QMARK_QMARK, sym_equality_operator, anon_sym_LT_EQ, anon_sym_GT_EQ,
       anon_sym_CARET, anon_sym_LT_LT, anon_sym_GT_GT_GT, sym__additive_operator, anon_sym_STAR,
       anon_sym_PERCENT, anon_sym_TILDE_SLASH, anon_sym_is, anon_sym_as, anon_sym_DOT_DOT,
       anon_sym_QMARK_DOT_DOT, anon_sym_SEMI, anon_sym_EQ_GT, anon_sym_when, anon_sym_case,
       anon_sym_else, anon_sym_AMP_AMP, anon_sym_PIPE_PIPE])])]"

lemma small_run_290: "small_run 920 39958 ts_small_parse_table_290 922 40088"
  by (simp add: small_simps ts_small_parse_table_290_def)

definition ts_small_parse_table_291 :: "small_group list" where
  "ts_small_parse_table_291 = [
     (40088, 10, [(ACTIONS 3, 1, [anon_sym_SLASH_SLASH]), (ACTIONS 5, 1,
       [anon_sym_SLASH_STAR]), (ACTIONS 7, 1, [anon_sym_SLASH_SLASH_SLASH]), (ACTIONS 9, 1,
       [sym__block_comment]), (ACTIONS 11, 1, [sym__documentation_block_comment]), (ACTIONS 2866,
       2, [anon_sym_LBRACK, anon_sym_LPAREN]), (STATE 922, 2, [sym_comment,
       sym_documentation_comment]), (ACTIONS 1682, 5, [anon_sym_GT, anon_sym_PIPE, anon_sym_AMP,
       anon_sym_GT_GT, anon_sym_SLASH]), (ACTIONS 2869, 5, [anon_sym_QMARK, anon_sym_LT,
       anon_sym_BANG, anon_sym_DOT, anon_sym_QMARK_DOT]), (ACTIONS 1684, 27, [anon_sym_RBRACE,
       anon_sym_COMMA, anon_sym_RBRACK, anon_sym_COLON, anon_sym_RPAREN, anon_sym_QMARK_QMARK,
       sym_equality_operator, anon_sym_LT_EQ, anon_sym_GT_EQ, anon_sym_CARET, anon_sym_LT_LT,
       anon_sym_GT_GT_GT, sym__additive_operator, anon_sym_STAR, anon_sym_PERCENT,
       anon_sym_TILDE_SLASH, anon_sym_is, anon_sym_as, anon_sym_DOT_DOT, anon_sym_QMARK_DOT_DOT,
       anon_sym_SEMI, anon_sym_EQ_GT, anon_sym_when, anon_sym_case, anon_sym_else,
       anon_sym_AMP_AMP, anon_sym_PIPE_PIPE])]),
     (40155, 8, [(ACTIONS 3, 1, [anon_sym_SLASH_SLASH]), (ACTIONS 5, 1, [anon_sym_SLASH_STAR]),
       (ACTIONS 7, 1, [anon_sym_SLASH_SLASH_SLASH]), (ACTIONS 9, 1, [sym__block_comment]),
       (ACTIONS 11, 1, [sym__documentation_block_comment]), (STATE 923, 2, [sym_comment,
       sym_documentation_comment]), (ACTIONS 1041, 10, [anon_sym_QMARK, anon_sym_LT, anon_sym_GT,
       anon_sym_PIPE, anon_sym_AMP, anon_sym_GT_GT, anon_sym_SLASH, anon_sym_BANG, anon_sym_DOT,
       anon_sym_QMARK_DOT]), (ACTIONS 1039, 29, [anon_sym_RBRACE, anon_sym_LBRACK,
       anon_sym_COMMA, anon_sym_RBRACK, anon_sym_COLON, anon_sym_LPAREN, anon_sym_RPAREN,
       anon_sym_QMARK_QMARK, sym_equality_operator, anon_sym_LT_EQ, anon_sym_GT_EQ,
       anon_sym_CARET, anon_sym_LT_LT, anon_sym_GT_GT_GT, sym__additive_operator, anon_sym_STAR,
       anon_sym_PERCENT, anon_sym_TILDE_SLASH, anon_sym_is, anon_sym_as, anon_sym_DOT_DOT,
       anon_sym_QMARK_DOT_DOT, anon_sym_SEMI, anon_sym_EQ_GT, anon_sym_when, anon_sym_case,
       anon_sym_else, anon_sym_AMP_AMP, anon_sym_PIPE_PIPE])])]"

lemma small_run_291: "small_run 922 40088 ts_small_parse_table_291 924 40218"
  by (simp add: small_simps ts_small_parse_table_291_def)

definition ts_small_parse_table_292 :: "small_group list" where
  "ts_small_parse_table_292 = [
     (40218, 8, [(ACTIONS 3, 1, [anon_sym_SLASH_SLASH]), (ACTIONS 5, 1, [anon_sym_SLASH_STAR]),
       (ACTIONS 7, 1, [anon_sym_SLASH_SLASH_SLASH]), (ACTIONS 9, 1, [sym__block_comment]),
       (ACTIONS 11, 1, [sym__documentation_block_comment]), (STATE 924, 2, [sym_comment,
       sym_documentation_comment]), (ACTIONS 2874, 10, [anon_sym_QMARK, anon_sym_LT, anon_sym_GT,
       anon_sym_PIPE, anon_sym_AMP, anon_sym_GT_GT, anon_sym_SLASH, anon_sym_BANG, anon_sym_DOT,
       anon_sym_QMARK_DOT]), (ACTIONS 2872, 29, [anon_sym_RBRACE, anon_sym_LBRACK,
       anon_sym_COMMA, anon_sym_RBRACK, anon_sym_COLON, anon_sym_LPAREN, anon_sym_RPAREN,
       anon_sym_QMARK_QMARK, sym_equality_operator, anon_sym_LT_EQ, anon_sym_GT_EQ,
       anon_sym_CARET, anon_sym_LT_LT, anon_sym_GT_GT_GT, sym__additive_operator, anon_sym_STAR,
       anon_sym_PERCENT, anon_sym_TILDE_SLASH, anon_sym_is, anon_sym_as, anon_sym_DOT_DOT,
       anon_sym_QMARK_DOT_DOT, anon_sym_SEMI, anon_sym_EQ_GT, anon_sym_when, anon_sym_case,
       anon_sym_else, anon_sym_AMP_AMP, anon_sym_PIPE_PIPE])]),
     (40281, 8, [(ACTIONS 3, 1, [anon_sym_SLASH_SLASH]), (ACTIONS 5, 1, [anon_sym_SLASH_STAR]),
       (ACTIONS 7, 1, [anon_sym_SLASH_SLASH_SLASH]), (ACTIONS 9, 1, [sym__block_comment]),
       (ACTIONS 11, 1, [sym__documentation_block_comment]), (STATE 925, 2, [sym_comment,
       sym_documentation_comment]), (ACTIONS 2878, 10, [anon_sym_QMARK, anon_sym_LT, anon_sym_GT,
       anon_sym_PIPE, anon_sym_AMP, anon_sym_GT_GT, anon_sym_SLASH, anon_sym_BANG, anon_sym_DOT,
       anon_sym_QMARK_DOT]), (ACTIONS 2876, 29, [anon_sym_RBRACE, anon_sym_LBRACK,
       anon_sym_COMMA, anon_sym_RBRACK, anon_sym_COLON, anon_sym_LPAREN, anon_sym_RPAREN,
       anon_sym_QMARK_QMARK, sym_equality_operator, anon_sym_LT_EQ, anon_sym_GT_EQ,
       anon_sym_CARET, anon_sym_LT_LT, anon_sym_GT_GT_GT, sym__additive_operator, anon_sym_STAR,
       anon_sym_PERCENT, anon_sym_TILDE_SLASH, anon_sym_is, anon_sym_as, anon_sym_DOT_DOT,
       anon_sym_QMARK_DOT_DOT, anon_sym_SEMI, anon_sym_EQ_GT, anon_sym_when, anon_sym_case,
       anon_sym_else, anon_sym_AMP_AMP, anon_sym_PIPE_PIPE])])]"

lemma small_run_292: "small_run 924 40218 ts_small_parse_table_292 926 40344"
  by (simp add: small_simps ts_small_parse_table_292_def)

definition ts_small_parse_table_293 :: "small_group list" where
  "ts_small_parse_table_293 = [
     (40344, 8, [(ACTIONS 3, 1, [anon_sym_SLASH_SLASH]), (ACTIONS 5, 1, [anon_sym_SLASH_STAR]),
       (ACTIONS 7, 1, [anon_sym_SLASH_SLASH_SLASH]), (ACTIONS 9, 1, [sym__block_comment]),
       (ACTIONS 11, 1, [sym__documentation_block_comment]), (STATE 926, 2, [sym_comment,
       sym_documentation_comment]), (ACTIONS 2499, 10, [anon_sym_QMARK, anon_sym_LT, anon_sym_GT,
       anon_sym_PIPE, anon_sym_AMP, anon_sym_GT_GT, anon_sym_SLASH, anon_sym_BANG, anon_sym_DOT,
       anon_sym_QMARK_DOT]), (ACTIONS 2497, 29, [anon_sym_RBRACE, anon_sym_LBRACK,
       anon_sym_COMMA, anon_sym_RBRACK, anon_sym_COLON, anon_sym_LPAREN, anon_sym_RPAREN,
       anon_sym_QMARK_QMARK, sym_equality_operator, anon_sym_LT_EQ, anon_sym_GT_EQ,
       anon_sym_CARET, anon_sym_LT_LT, anon_sym_GT_GT_GT, sym__additive_operator, anon_sym_STAR,
       anon_sym_PERCENT, anon_sym_TILDE_SLASH, anon_sym_is, anon_sym_as, anon_sym_DOT_DOT,
       anon_sym_QMARK_DOT_DOT, anon_sym_SEMI, anon_sym_EQ_GT, anon_sym_when, anon_sym_case,
       anon_sym_else, anon_sym_AMP_AMP, anon_sym_PIPE_PIPE])]),
     (40407, 8, [(ACTIONS 3, 1, [anon_sym_SLASH_SLASH]), (ACTIONS 5, 1, [anon_sym_SLASH_STAR]),
       (ACTIONS 7, 1, [anon_sym_SLASH_SLASH_SLASH]), (ACTIONS 9, 1, [sym__block_comment]),
       (ACTIONS 11, 1, [sym__documentation_block_comment]), (STATE 927, 2, [sym_comment,
       sym_documentation_comment]), (ACTIONS 2882, 10, [anon_sym_QMARK, anon_sym_LT, anon_sym_GT,
       anon_sym_PIPE, anon_sym_AMP, anon_sym_GT_GT, anon_sym_SLASH, anon_sym_BANG, anon_sym_DOT,
       anon_sym_QMARK_DOT]), (ACTIONS 2880, 29, [anon_sym_RBRACE, anon_sym_LBRACK,
       anon_sym_COMMA, anon_sym_RBRACK, anon_sym_COLON, anon_sym_LPAREN, anon_sym_RPAREN,
       anon_sym_QMARK_QMARK, sym_equality_operator, anon_sym_LT_EQ, anon_sym_GT_EQ,
       anon_sym_CARET, anon_sym_LT_LT, anon_sym_GT_GT_GT, sym__additive_operator, anon_sym_STAR,
       anon_sym_PERCENT, anon_sym_TILDE_SLASH, anon_sym_is, anon_sym_as, anon_sym_DOT_DOT,
       anon_sym_QMARK_DOT_DOT, anon_sym_SEMI, anon_sym_EQ_GT, anon_sym_when, anon_sym_case,
       anon_sym_else, anon_sym_AMP_AMP, anon_sym_PIPE_PIPE])])]"

lemma small_run_293: "small_run 926 40344 ts_small_parse_table_293 928 40470"
  by (simp add: small_simps ts_small_parse_table_293_def)

definition ts_small_parse_table_294 :: "small_group list" where
  "ts_small_parse_table_294 = [
     (40470, 12, [(ACTIONS 3, 1, [anon_sym_SLASH_SLASH]), (ACTIONS 5, 1,
       [anon_sym_SLASH_STAR]), (ACTIONS 7, 1, [anon_sym_SLASH_SLASH_SLASH]), (ACTIONS 9, 1,
       [sym__block_comment]), (ACTIONS 11, 1, [sym__documentation_block_comment]), (ACTIONS 2884,
       1, [anon_sym_LPAREN]), (ACTIONS 2887, 1, [anon_sym_QMARK]), (STATE 1006, 1,
       [sym_parameter_type_list]), (STATE 1073, 1, [sym_nullable_type]), (STATE 928, 2,
       [sym_comment, sym_documentation_comment]), (ACTIONS 2487, 11, [anon_sym_LT, anon_sym_GT,
       anon_sym_PIPE, anon_sym_AMP, anon_sym_GT_GT, anon_sym_SLASH, anon_sym_BANG, anon_sym_as,
       anon_sym_DOT, anon_sym_QMARK_DOT, anon_sym_async]), (ACTIONS 2479, 24, [anon_sym_LBRACE,
       anon_sym_LBRACK, anon_sym_COMMA, anon_sym_QMARK_QMARK, sym_equality_operator,
       anon_sym_LT_EQ, anon_sym_GT_EQ, anon_sym_CARET, anon_sym_LT_LT, anon_sym_GT_GT_GT,
       sym__additive_operator, anon_sym_STAR, anon_sym_PERCENT, anon_sym_TILDE_SLASH,
       anon_sym_is, anon_sym_DOT_DOT, anon_sym_QMARK_DOT_DOT, anon_sym_SEMI, anon_sym_EQ_GT,
       anon_sym_async_STAR, anon_sym_sync_STAR, anon_sym_Function, anon_sym_AMP_AMP,
       anon_sym_PIPE_PIPE])]),
     (40541, 12, [(ACTIONS 3, 1, [anon_sym_SLASH_SLASH]), (ACTIONS 5, 1,
       [anon_sym_SLASH_STAR]), (ACTIONS 7, 1, [anon_sym_SLASH_SLASH_SLASH]), (ACTIONS 9, 1,
       [sym__block_comment]), (ACTIONS 11, 1, [sym__documentation_block_comment]), (ACTIONS 2890,
       1, [anon_sym_LPAREN]), (ACTIONS 2893, 1, [anon_sym_QMARK]), (STATE 1022, 1,
       [sym_parameter_type_list]), (STATE 1026, 1, [sym_nullable_type]), (STATE 929, 2,
       [sym_comment, sym_documentation_comment]), (ACTIONS 2515, 11, [anon_sym_LT, anon_sym_GT,
       anon_sym_PIPE, anon_sym_AMP, anon_sym_GT_GT, anon_sym_SLASH, anon_sym_BANG, anon_sym_as,
       anon_sym_DOT, anon_sym_QMARK_DOT, anon_sym_async]), (ACTIONS 2507, 24, [anon_sym_LBRACE,
       anon_sym_LBRACK, anon_sym_COMMA, anon_sym_QMARK_QMARK, sym_equality_operator,
       anon_sym_LT_EQ, anon_sym_GT_EQ, anon_sym_CARET, anon_sym_LT_LT, anon_sym_GT_GT_GT,
       sym__additive_operator, anon_sym_STAR, anon_sym_PERCENT, anon_sym_TILDE_SLASH,
       anon_sym_is, anon_sym_DOT_DOT, anon_sym_QMARK_DOT_DOT, anon_sym_SEMI, anon_sym_EQ_GT,
       anon_sym_async_STAR, anon_sym_sync_STAR, anon_sym_Function, anon_sym_AMP_AMP,
       anon_sym_PIPE_PIPE])])]"

lemma small_run_294: "small_run 928 40470 ts_small_parse_table_294 930 40612"
  by (simp add: small_simps ts_small_parse_table_294_def)

definition ts_small_parse_table_295 :: "small_group list" where
  "ts_small_parse_table_295 = [
     (40612, 11, [(ACTIONS 3, 1, [anon_sym_SLASH_SLASH]), (ACTIONS 5, 1,
       [anon_sym_SLASH_STAR]), (ACTIONS 7, 1, [anon_sym_SLASH_SLASH_SLASH]), (ACTIONS 9, 1,
       [sym__block_comment]), (ACTIONS 11, 1, [sym__documentation_block_comment]), (STATE 425, 1,
       [sym_multiplicative_operator]), (STATE 972, 1,
       [aux_sym_multiplicative_expression_repeat1]), (STATE 1416, 1,
       [sym__multiplicative_operator]), (STATE 930, 2, [sym_comment, sym_documentation_comment]),
       (ACTIONS 2491, 12, [anon_sym_QMARK, anon_sym_LT, anon_sym_GT, anon_sym_PIPE, anon_sym_AMP,
       anon_sym_GT_GT, anon_sym_SLASH, anon_sym_BANG, anon_sym_as, anon_sym_DOT,
       anon_sym_QMARK_DOT, anon_sym_async]), (ACTIONS 2489, 24, [anon_sym_LBRACE,
       anon_sym_LBRACK, anon_sym_COMMA, anon_sym_LPAREN, anon_sym_QMARK_QMARK,
       sym_equality_operator, anon_sym_LT_EQ, anon_sym_GT_EQ, anon_sym_CARET, anon_sym_LT_LT,
       anon_sym_GT_GT_GT, sym__additive_operator, anon_sym_STAR, anon_sym_PERCENT,
       anon_sym_TILDE_SLASH, anon_sym_is, anon_sym_DOT_DOT, anon_sym_QMARK_DOT_DOT,
       anon_sym_SEMI, anon_sym_EQ_GT, anon_sym_async_STAR, anon_sym_sync_STAR, anon_sym_AMP_AMP,
       anon_sym_PIPE_PIPE])]),
     (40681, 43, [(ACTIONS 3, 1, [anon_sym_SLASH_SLASH]), (ACTIONS 5, 1,
       [anon_sym_SLASH_STAR]), (ACTIONS 7, 1, [anon_sym_SLASH_SLASH_SLASH]), (ACTIONS 9, 1,
       [sym__block_comment]), (ACTIONS 11, 1, [sym__documentation_block_comment]), (ACTIONS 17,
       1, [anon_sym_LPAREN]), (ACTIONS 33, 1, [sym_void_type]), (ACTIONS 35, 1, [anon_sym_var]),
       (ACTIONS 45, 1, [anon_sym_Function]), (ACTIONS 67, 1, [anon_sym_late]), (ACTIONS 143, 1,
       [anon_sym_AT]), (ACTIONS 145, 1, [anon_sym_final]), (ACTIONS 153, 1,
       [anon_sym_covariant]), (ACTIONS 159, 1, [anon_sym_this]), (ACTIONS 161, 1,
       [anon_sym_super]), (ACTIONS 2262, 1, [sym_identifier]), (ACTIONS 2268, 1,
       [sym_const_builtin]), (STATE 1077, 1, [sym__metadata]), (STATE 1308, 1,
       [aux_sym__metadata_repeat1]), (STATE 1361, 1, [sym_annotation]), (STATE 1463, 1,
       [sym__function_builtin_identifier]), (STATE 1530, 1, [sym__type_name]), (STATE 1605, 1,
       [aux_sym__function_type_tails]), (STATE 1704, 1, [sym__function_type_tail]), (STATE 1794,
       1, [sym__covariant]), (STATE 1796, 1, [sym__type_not_function]), (STATE 1805, 1,
       [sym_record_type]), (STATE 1848, 1, [sym_function_type]), (STATE 1896, 1,
       [sym__type_not_void_not_function]), (STATE 1915, 1, [sym__late_builtin]), (STATE 1976, 1,
       [sym_inferred_type]), (STATE 1984, 1, [sym_final_builtin]), (STATE 2464, 1,
       [sym__simple_formal_parameter]), (STATE 2466, 1, [sym__normal_formal_parameter]), (STATE
       2468, 1, [sym__declared_identifier]), (STATE 2557, 1, [sym__final_const_var_or_type]),
       (STATE 2755, 1, [sym__var_or_type]), (STATE 2756, 1, [sym__type]), (STATE 3190, 1,
       [sym_formal_parameter]), (STATE 3283, 1, [sym_this]), (STATE 3288, 1, [sym_super]), (STATE
       931, 2, [sym_comment, sym_documentation_comment]), (STATE 2465, 3,
       [sym__function_formal_parameter, sym_super_formal_parameter, sym_constructor_param])])]"

lemma small_run_295: "small_run 930 40612 ts_small_parse_table_295 932 40814"
  by (simp add: small_simps ts_small_parse_table_295_def)

definition ts_small_parse_table_296 :: "small_group list" where
  "ts_small_parse_table_296 = [
     (40814, 14, [(ACTIONS 3, 1, [anon_sym_SLASH_SLASH]), (ACTIONS 5, 1,
       [anon_sym_SLASH_STAR]), (ACTIONS 7, 1, [anon_sym_SLASH_SLASH_SLASH]), (ACTIONS 9, 1,
       [sym__block_comment]), (ACTIONS 11, 1, [sym__documentation_block_comment]), (ACTIONS 1341,
       1, [anon_sym_DOT]), (ACTIONS 2787, 1, [anon_sym_QMARK]), (ACTIONS 2790, 1, [anon_sym_LT]),
       (STATE 1612, 1, [sym__type_dot_identifier]), (ACTIONS 1322, 2, [anon_sym_LBRACK,
       anon_sym_LPAREN]), (ACTIONS 1332, 2, [anon_sym_BANG, anon_sym_QMARK_DOT]), (STATE 932, 2,
       [sym_comment, sym_documentation_comment]), (ACTIONS 1328, 5, [anon_sym_GT, anon_sym_PIPE,
       anon_sym_AMP, anon_sym_GT_GT, anon_sym_SLASH]), (ACTIONS 1330, 26, [anon_sym_RBRACE,
       anon_sym_COMMA, anon_sym_RBRACK, anon_sym_COLON, anon_sym_RPAREN, anon_sym_QMARK_QMARK,
       sym_equality_operator, anon_sym_LT_EQ, anon_sym_GT_EQ, anon_sym_CARET, anon_sym_LT_LT,
       anon_sym_GT_GT_GT, sym__additive_operator, anon_sym_STAR, anon_sym_PERCENT,
       anon_sym_TILDE_SLASH, anon_sym_is, anon_sym_as, anon_sym_DOT_DOT, anon_sym_QMARK_DOT_DOT,
       anon_sym_SEMI, anon_sym_EQ_GT, anon_sym_case, anon_sym_else, anon_sym_AMP_AMP,
       anon_sym_PIPE_PIPE])]),
     (40889, 12, [(ACTIONS 3, 1, [anon_sym_SLASH_SLASH]), (ACTIONS 5, 1,
       [anon_sym_SLASH_STAR]), (ACTIONS 7, 1, [anon_sym_SLASH_SLASH_SLASH]), (ACTIONS 9, 1,
       [sym__block_comment]), (ACTIONS 11, 1, [sym__documentation_block_comment]), (ACTIONS 2896,
       1, [anon_sym_LPAREN]), (ACTIONS 2900, 1, [anon_sym_QMARK]), (STATE 1022, 1,
       [sym_parameter_type_list]), (STATE 1026, 1, [sym_nullable_type]), (STATE 933, 2,
       [sym_comment, sym_documentation_comment]), (ACTIONS 2528, 11, [anon_sym_LT, anon_sym_GT,
       anon_sym_PIPE, anon_sym_AMP, anon_sym_GT_GT, anon_sym_SLASH, anon_sym_BANG, anon_sym_as,
       anon_sym_DOT, anon_sym_QMARK_DOT, anon_sym_async]), (ACTIONS 2517, 24, [anon_sym_LBRACE,
       anon_sym_LBRACK, anon_sym_COMMA, anon_sym_QMARK_QMARK, sym_equality_operator,
       anon_sym_LT_EQ, anon_sym_GT_EQ, anon_sym_CARET, anon_sym_LT_LT, anon_sym_GT_GT_GT,
       sym__additive_operator, anon_sym_STAR, anon_sym_PERCENT, anon_sym_TILDE_SLASH,
       anon_sym_is, anon_sym_DOT_DOT, anon_sym_QMARK_DOT_DOT, anon_sym_SEMI, anon_sym_EQ_GT,
       anon_sym_async_STAR, anon_sym_sync_STAR, anon_sym_Function, anon_sym_AMP_AMP,
       anon_sym_PIPE_PIPE])])]"

lemma small_run_296: "small_run 932 40814 ts_small_parse_table_296 934 40960"
  by (simp add: small_simps ts_small_parse_table_296_def)

definition ts_small_parse_table_297 :: "small_group list" where
  "ts_small_parse_table_297 = [
     (40960, 8, [(ACTIONS 3, 1, [anon_sym_SLASH_SLASH]), (ACTIONS 5, 1, [anon_sym_SLASH_STAR]),
       (ACTIONS 7, 1, [anon_sym_SLASH_SLASH_SLASH]), (ACTIONS 9, 1, [sym__block_comment]),
       (ACTIONS 11, 1, [sym__documentation_block_comment]), (STATE 934, 2, [sym_comment,
       sym_documentation_comment]), (ACTIONS 2906, 10, [anon_sym_QMARK, anon_sym_LT, anon_sym_GT,
       anon_sym_PIPE, anon_sym_AMP, anon_sym_GT_GT, anon_sym_SLASH, anon_sym_BANG, anon_sym_DOT,
       anon_sym_QMARK_DOT]), (ACTIONS 2904, 29, [anon_sym_RBRACE, anon_sym_LBRACK,
       anon_sym_COMMA, anon_sym_RBRACK, anon_sym_COLON, anon_sym_LPAREN, anon_sym_RPAREN,
       anon_sym_QMARK_QMARK, sym_equality_operator, anon_sym_LT_EQ, anon_sym_GT_EQ,
       anon_sym_CARET, anon_sym_LT_LT, anon_sym_GT_GT_GT, sym__additive_operator, anon_sym_STAR,
       anon_sym_PERCENT, anon_sym_TILDE_SLASH, anon_sym_is, anon_sym_as, anon_sym_DOT_DOT,
       anon_sym_QMARK_DOT_DOT, anon_sym_SEMI, anon_sym_EQ_GT, anon_sym_when, anon_sym_case,
       anon_sym_else, anon_sym_AMP_AMP, anon_sym_PIPE_PIPE])]),
     (41023, 8, [(ACTIONS 3, 1, [anon_sym_SLASH_SLASH]), (ACTIONS 5, 1, [anon_sym_SLASH_STAR]),
       (ACTIONS 7, 1, [anon_sym_SLASH_SLASH_SLASH]), (ACTIONS 9, 1, [sym__block_comment]),
       (ACTIONS 11, 1, [sym__documentation_block_comment]), (STATE 935, 2, [sym_comment,
       sym_documentation_comment]), (ACTIONS 2910, 10, [anon_sym_QMARK, anon_sym_LT, anon_sym_GT,
       anon_sym_PIPE, anon_sym_AMP, anon_sym_GT_GT, anon_sym_SLASH, anon_sym_BANG, anon_sym_DOT,
       anon_sym_QMARK_DOT]), (ACTIONS 2908, 29, [anon_sym_RBRACE, anon_sym_LBRACK,
       anon_sym_COMMA, anon_sym_RBRACK, anon_sym_COLON, anon_sym_LPAREN, anon_sym_RPAREN,
       anon_sym_QMARK_QMARK, sym_equality_operator, anon_sym_LT_EQ, anon_sym_GT_EQ,
       anon_sym_CARET, anon_sym_LT_LT, anon_sym_GT_GT_GT, sym__additive_operator, anon_sym_STAR,
       anon_sym_PERCENT, anon_sym_TILDE_SLASH, anon_sym_is, anon_sym_as, anon_sym_DOT_DOT,
       anon_sym_QMARK_DOT_DOT, anon_sym_SEMI, anon_sym_EQ_GT, anon_sym_when, anon_sym_case,
       anon_sym_else, anon_sym_AMP_AMP, anon_sym_PIPE_PIPE])])]"

lemma small_run_297: "small_run 934 40960 ts_small_parse_table_297 936 41086"
  by (simp add: small_simps ts_small_parse_table_297_def)

definition ts_small_parse_table_298 :: "small_group list" where
  "ts_small_parse_table_298 = [
     (41086, 12, [(ACTIONS 3, 1, [anon_sym_SLASH_SLASH]), (ACTIONS 5, 1,
       [anon_sym_SLASH_STAR]), (ACTIONS 7, 1, [anon_sym_SLASH_SLASH_SLASH]), (ACTIONS 9, 1,
       [sym__block_comment]), (ACTIONS 11, 1, [sym__documentation_block_comment]), (ACTIONS 2890,
       1, [anon_sym_LPAREN]), (ACTIONS 2893, 1, [anon_sym_QMARK]), (STATE 928, 1,
       [sym_nullable_type]), (STATE 1022, 1, [sym_parameter_type_list]), (STATE 936, 2,
       [sym_comment, sym_documentation_comment]), (ACTIONS 2515, 11, [anon_sym_LT, anon_sym_GT,
       anon_sym_PIPE, anon_sym_AMP, anon_sym_GT_GT, anon_sym_SLASH, anon_sym_BANG, anon_sym_as,
       anon_sym_DOT, anon_sym_QMARK_DOT, anon_sym_async]), (ACTIONS 2507, 24, [anon_sym_LBRACE,
       anon_sym_LBRACK, anon_sym_COMMA, anon_sym_QMARK_QMARK, sym_equality_operator,
       anon_sym_LT_EQ, anon_sym_GT_EQ, anon_sym_CARET, anon_sym_LT_LT, anon_sym_GT_GT_GT,
       sym__additive_operator, anon_sym_STAR, anon_sym_PERCENT, anon_sym_TILDE_SLASH,
       anon_sym_is, anon_sym_DOT_DOT, anon_sym_QMARK_DOT_DOT, anon_sym_SEMI, anon_sym_EQ_GT,
       anon_sym_async_STAR, anon_sym_sync_STAR, anon_sym_Function, anon_sym_AMP_AMP,
       anon_sym_PIPE_PIPE])]),
     (41157, 8, [(ACTIONS 3, 1, [anon_sym_SLASH_SLASH]), (ACTIONS 5, 1, [anon_sym_SLASH_STAR]),
       (ACTIONS 7, 1, [anon_sym_SLASH_SLASH_SLASH]), (ACTIONS 9, 1, [sym__block_comment]),
       (ACTIONS 11, 1, [sym__documentation_block_comment]), (STATE 937, 2, [sym_comment,
       sym_documentation_comment]), (ACTIONS 2914, 10, [anon_sym_QMARK, anon_sym_LT, anon_sym_GT,
       anon_sym_PIPE, anon_sym_AMP, anon_sym_GT_GT, anon_sym_SLASH, anon_sym_BANG, anon_sym_DOT,
       anon_sym_QMARK_DOT]), (ACTIONS 2912, 29, [anon_sym_RBRACE, anon_sym_LBRACK,
       anon_sym_COMMA, anon_sym_RBRACK, anon_sym_COLON, anon_sym_LPAREN, anon_sym_RPAREN,
       anon_sym_QMARK_QMARK, sym_equality_operator, anon_sym_LT_EQ, anon_sym_GT_EQ,
       anon_sym_CARET, anon_sym_LT_LT, anon_sym_GT_GT_GT, sym__additive_operator, anon_sym_STAR,
       anon_sym_PERCENT, anon_sym_TILDE_SLASH, anon_sym_is, anon_sym_as, anon_sym_DOT_DOT,
       anon_sym_QMARK_DOT_DOT, anon_sym_SEMI, anon_sym_EQ_GT, anon_sym_when, anon_sym_case,
       anon_sym_else, anon_sym_AMP_AMP, anon_sym_PIPE_PIPE])])]"

lemma small_run_298: "small_run 936 41086 ts_small_parse_table_298 938 41220"
  by (simp add: small_simps ts_small_parse_table_298_def)

definition ts_small_parse_table_299 :: "small_group list" where
  "ts_small_parse_table_299 = [
     (41220, 8, [(ACTIONS 3, 1, [anon_sym_SLASH_SLASH]), (ACTIONS 5, 1, [anon_sym_SLASH_STAR]),
       (ACTIONS 7, 1, [anon_sym_SLASH_SLASH_SLASH]), (ACTIONS 9, 1, [sym__block_comment]),
       (ACTIONS 11, 1, [sym__documentation_block_comment]), (STATE 938, 2, [sym_comment,
       sym_documentation_comment]), (ACTIONS 984, 10, [anon_sym_QMARK, anon_sym_LT, anon_sym_GT,
       anon_sym_PIPE, anon_sym_AMP, anon_sym_GT_GT, anon_sym_SLASH, anon_sym_BANG, anon_sym_DOT,
       anon_sym_QMARK_DOT]), (ACTIONS 980, 29, [anon_sym_RBRACE, anon_sym_LBRACK, anon_sym_COMMA,
       anon_sym_RBRACK, anon_sym_COLON, anon_sym_LPAREN, anon_sym_RPAREN, anon_sym_QMARK_QMARK,
       sym_equality_operator, anon_sym_LT_EQ, anon_sym_GT_EQ, anon_sym_CARET, anon_sym_LT_LT,
       anon_sym_GT_GT_GT, sym__additive_operator, anon_sym_STAR, anon_sym_PERCENT,
       anon_sym_TILDE_SLASH, anon_sym_is, anon_sym_as, anon_sym_DOT_DOT, anon_sym_QMARK_DOT_DOT,
       anon_sym_SEMI, anon_sym_EQ_GT, anon_sym_when, anon_sym_case, anon_sym_else,
       anon_sym_AMP_AMP, anon_sym_PIPE_PIPE])]),
     (41283, 8, [(ACTIONS 3, 1, [anon_sym_SLASH_SLASH]), (ACTIONS 5, 1, [anon_sym_SLASH_STAR]),
       (ACTIONS 7, 1, [anon_sym_SLASH_SLASH_SLASH]), (ACTIONS 9, 1, [sym__block_comment]),
       (ACTIONS 11, 1, [sym__documentation_block_comment]), (STATE 939, 2, [sym_comment,
       sym_documentation_comment]), (ACTIONS 2918, 10, [anon_sym_QMARK, anon_sym_LT, anon_sym_GT,
       anon_sym_PIPE, anon_sym_AMP, anon_sym_GT_GT, anon_sym_SLASH, anon_sym_BANG, anon_sym_DOT,
       anon_sym_QMARK_DOT]), (ACTIONS 2916, 29, [anon_sym_RBRACE, anon_sym_LBRACK,
       anon_sym_COMMA, anon_sym_RBRACK, anon_sym_COLON, anon_sym_LPAREN, anon_sym_RPAREN,
       anon_sym_QMARK_QMARK, sym_equality_operator, anon_sym_LT_EQ, anon_sym_GT_EQ,
       anon_sym_CARET, anon_sym_LT_LT, anon_sym_GT_GT_GT, sym__additive_operator, anon_sym_STAR,
       anon_sym_PERCENT, anon_sym_TILDE_SLASH, anon_sym_is, anon_sym_as, anon_sym_DOT_DOT,
       anon_sym_QMARK_DOT_DOT, anon_sym_SEMI, anon_sym_EQ_GT, anon_sym_when, anon_sym_case,
       anon_sym_else, anon_sym_AMP_AMP, anon_sym_PIPE_PIPE])])]"

lemma small_run_299: "small_run 938 41220 ts_small_parse_table_299 940 41346"
  by (simp add: small_simps ts_small_parse_table_299_def)

definition ts_small_parse_table_300 :: "small_group list" where
  "ts_small_parse_table_300 = [
     (41346, 8, [(ACTIONS 3, 1, [anon_sym_SLASH_SLASH]), (ACTIONS 5, 1, [anon_sym_SLASH_STAR]),
       (ACTIONS 7, 1, [anon_sym_SLASH_SLASH_SLASH]), (ACTIONS 9, 1, [sym__block_comment]),
       (ACTIONS 11, 1, [sym__documentation_block_comment]), (STATE 940, 2, [sym_comment,
       sym_documentation_comment]), (ACTIONS 2698, 10, [anon_sym_QMARK, anon_sym_LT, anon_sym_GT,
       anon_sym_PIPE, anon_sym_AMP, anon_sym_GT_GT, anon_sym_SLASH, anon_sym_BANG, anon_sym_DOT,
       anon_sym_QMARK_DOT]), (ACTIONS 2694, 29, [anon_sym_RBRACE, anon_sym_LBRACK,
       anon_sym_COMMA, anon_sym_RBRACK, anon_sym_COLON, anon_sym_LPAREN, anon_sym_RPAREN,
       anon_sym_QMARK_QMARK, sym_equality_operator, anon_sym_LT_EQ, anon_sym_GT_EQ,
       anon_sym_CARET, anon_sym_LT_LT, anon_sym_GT_GT_GT, sym__additive_operator, anon_sym_STAR,
       anon_sym_PERCENT, anon_sym_TILDE_SLASH, anon_sym_is, anon_sym_as, anon_sym_DOT_DOT,
       anon_sym_QMARK_DOT_DOT, anon_sym_SEMI, anon_sym_EQ_GT, anon_sym_when, anon_sym_case,
       anon_sym_else, anon_sym_AMP_AMP, anon_sym_PIPE_PIPE])]),
     (41409, 8, [(ACTIONS 3, 1, [anon_sym_SLASH_SLASH]), (ACTIONS 5, 1, [anon_sym_SLASH_STAR]),
       (ACTIONS 7, 1, [anon_sym_SLASH_SLASH_SLASH]), (ACTIONS 9, 1, [sym__block_comment]),
       (ACTIONS 11, 1, [sym__documentation_block_comment]), (STATE 941, 2, [sym_comment,
       sym_documentation_comment]), (ACTIONS 2922, 10, [anon_sym_QMARK, anon_sym_LT, anon_sym_GT,
       anon_sym_PIPE, anon_sym_AMP, anon_sym_GT_GT, anon_sym_SLASH, anon_sym_BANG, anon_sym_DOT,
       anon_sym_QMARK_DOT]), (ACTIONS 2920, 29, [anon_sym_RBRACE, anon_sym_LBRACK,
       anon_sym_COMMA, anon_sym_RBRACK, anon_sym_COLON, anon_sym_LPAREN, anon_sym_RPAREN,
       anon_sym_QMARK_QMARK, sym_equality_operator, anon_sym_LT_EQ, anon_sym_GT_EQ,
       anon_sym_CARET, anon_sym_LT_LT, anon_sym_GT_GT_GT, sym__additive_operator, anon_sym_STAR,
       anon_sym_PERCENT, anon_sym_TILDE_SLASH, anon_sym_is, anon_sym_as, anon_sym_DOT_DOT,
       anon_sym_QMARK_DOT_DOT, anon_sym_SEMI, anon_sym_EQ_GT, anon_sym_when, anon_sym_case,
       anon_sym_else, anon_sym_AMP_AMP, anon_sym_PIPE_PIPE])])]"

lemma small_run_300: "small_run 940 41346 ts_small_parse_table_300 942 41472"
  by (simp add: small_simps ts_small_parse_table_300_def)

definition ts_small_parse_table_301 :: "small_group list" where
  "ts_small_parse_table_301 = [
     (41472, 8, [(ACTIONS 3, 1, [anon_sym_SLASH_SLASH]), (ACTIONS 5, 1, [anon_sym_SLASH_STAR]),
       (ACTIONS 7, 1, [anon_sym_SLASH_SLASH_SLASH]), (ACTIONS 9, 1, [sym__block_comment]),
       (ACTIONS 11, 1, [sym__documentation_block_comment]), (STATE 942, 2, [sym_comment,
       sym_documentation_comment]), (ACTIONS 2130, 10, [anon_sym_QMARK, anon_sym_LT, anon_sym_GT,
       anon_sym_PIPE, anon_sym_AMP, anon_sym_GT_GT, anon_sym_SLASH, anon_sym_BANG, anon_sym_DOT,
       anon_sym_QMARK_DOT]), (ACTIONS 2128, 29, [anon_sym_RBRACE, anon_sym_LBRACK,
       anon_sym_COMMA, anon_sym_RBRACK, anon_sym_COLON, anon_sym_LPAREN, anon_sym_RPAREN,
       anon_sym_QMARK_QMARK, sym_equality_operator, anon_sym_LT_EQ, anon_sym_GT_EQ,
       anon_sym_CARET, anon_sym_LT_LT, anon_sym_GT_GT_GT, sym__additive_operator, anon_sym_STAR,
       anon_sym_PERCENT, anon_sym_TILDE_SLASH, anon_sym_is, anon_sym_as, anon_sym_DOT_DOT,
       anon_sym_QMARK_DOT_DOT, anon_sym_SEMI, anon_sym_EQ_GT, anon_sym_when, anon_sym_case,
       anon_sym_else, anon_sym_AMP_AMP, anon_sym_PIPE_PIPE])]),
     (41535, 8, [(ACTIONS 3, 1, [anon_sym_SLASH_SLASH]), (ACTIONS 5, 1, [anon_sym_SLASH_STAR]),
       (ACTIONS 7, 1, [anon_sym_SLASH_SLASH_SLASH]), (ACTIONS 9, 1, [sym__block_comment]),
       (ACTIONS 11, 1, [sym__documentation_block_comment]), (STATE 943, 2, [sym_comment,
       sym_documentation_comment]), (ACTIONS 1733, 10, [anon_sym_QMARK, anon_sym_LT, anon_sym_GT,
       anon_sym_PIPE, anon_sym_AMP, anon_sym_GT_GT, anon_sym_SLASH, anon_sym_BANG, anon_sym_DOT,
       anon_sym_QMARK_DOT]), (ACTIONS 1731, 29, [anon_sym_RBRACE, anon_sym_LBRACK,
       anon_sym_COMMA, anon_sym_RBRACK, anon_sym_COLON, anon_sym_LPAREN, anon_sym_RPAREN,
       anon_sym_QMARK_QMARK, sym_equality_operator, anon_sym_LT_EQ, anon_sym_GT_EQ,
       anon_sym_CARET, anon_sym_LT_LT, anon_sym_GT_GT_GT, sym__additive_operator, anon_sym_STAR,
       anon_sym_PERCENT, anon_sym_TILDE_SLASH, anon_sym_is, anon_sym_as, anon_sym_DOT_DOT,
       anon_sym_QMARK_DOT_DOT, anon_sym_SEMI, anon_sym_EQ_GT, anon_sym_when, anon_sym_case,
       anon_sym_else, anon_sym_AMP_AMP, anon_sym_PIPE_PIPE])])]"

lemma small_run_301: "small_run 942 41472 ts_small_parse_table_301 944 41598"
  by (simp add: small_simps ts_small_parse_table_301_def)

definition ts_small_parse_table_302 :: "small_group list" where
  "ts_small_parse_table_302 = [
     (41598, 8, [(ACTIONS 3, 1, [anon_sym_SLASH_SLASH]), (ACTIONS 5, 1, [anon_sym_SLASH_STAR]),
       (ACTIONS 7, 1, [anon_sym_SLASH_SLASH_SLASH]), (ACTIONS 9, 1, [sym__block_comment]),
       (ACTIONS 11, 1, [sym__documentation_block_comment]), (STATE 944, 2, [sym_comment,
       sym_documentation_comment]), (ACTIONS 2926, 10, [anon_sym_QMARK, anon_sym_LT, anon_sym_GT,
       anon_sym_PIPE, anon_sym_AMP, anon_sym_GT_GT, anon_sym_SLASH, anon_sym_BANG, anon_sym_DOT,
       anon_sym_QMARK_DOT]), (ACTIONS 2924, 29, [anon_sym_RBRACE, anon_sym_LBRACK,
       anon_sym_COMMA, anon_sym_RBRACK, anon_sym_COLON, anon_sym_LPAREN, anon_sym_RPAREN,
       anon_sym_QMARK_QMARK, sym_equality_operator, anon_sym_LT_EQ, anon_sym_GT_EQ,
       anon_sym_CARET, anon_sym_LT_LT, anon_sym_GT_GT_GT, sym__additive_operator, anon_sym_STAR,
       anon_sym_PERCENT, anon_sym_TILDE_SLASH, anon_sym_is, anon_sym_as, anon_sym_DOT_DOT,
       anon_sym_QMARK_DOT_DOT, anon_sym_SEMI, anon_sym_EQ_GT, anon_sym_when, anon_sym_case,
       anon_sym_else, anon_sym_AMP_AMP, anon_sym_PIPE_PIPE])]),
     (41661, 8, [(ACTIONS 3, 1, [anon_sym_SLASH_SLASH]), (ACTIONS 5, 1, [anon_sym_SLASH_STAR]),
       (ACTIONS 7, 1, [anon_sym_SLASH_SLASH_SLASH]), (ACTIONS 9, 1, [sym__block_comment]),
       (ACTIONS 11, 1, [sym__documentation_block_comment]), (STATE 945, 2, [sym_comment,
       sym_documentation_comment]), (ACTIONS 2930, 10, [anon_sym_QMARK, anon_sym_LT, anon_sym_GT,
       anon_sym_PIPE, anon_sym_AMP, anon_sym_GT_GT, anon_sym_SLASH, anon_sym_BANG, anon_sym_DOT,
       anon_sym_QMARK_DOT]), (ACTIONS 2928, 29, [anon_sym_RBRACE, anon_sym_LBRACK,
       anon_sym_COMMA, anon_sym_RBRACK, anon_sym_COLON, anon_sym_LPAREN, anon_sym_RPAREN,
       anon_sym_QMARK_QMARK, sym_equality_operator, anon_sym_LT_EQ, anon_sym_GT_EQ,
       anon_sym_CARET, anon_sym_LT_LT, anon_sym_GT_GT_GT, sym__additive_operator, anon_sym_STAR,
       anon_sym_PERCENT, anon_sym_TILDE_SLASH, anon_sym_is, anon_sym_as, anon_sym_DOT_DOT,
       anon_sym_QMARK_DOT_DOT, anon_sym_SEMI, anon_sym_EQ_GT, anon_sym_when, anon_sym_case,
       anon_sym_else, anon_sym_AMP_AMP, anon_sym_PIPE_PIPE])])]"

lemma small_run_302: "small_run 944 41598 ts_small_parse_table_302 946 41724"
  by (simp add: small_simps ts_small_parse_table_302_def)

definition ts_small_parse_table_303 :: "small_group list" where
  "ts_small_parse_table_303 = [
     (41724, 8, [(ACTIONS 3, 1, [anon_sym_SLASH_SLASH]), (ACTIONS 5, 1, [anon_sym_SLASH_STAR]),
       (ACTIONS 7, 1, [anon_sym_SLASH_SLASH_SLASH]), (ACTIONS 9, 1, [sym__block_comment]),
       (ACTIONS 11, 1, [sym__documentation_block_comment]), (STATE 946, 2, [sym_comment,
       sym_documentation_comment]), (ACTIONS 2934, 10, [anon_sym_QMARK, anon_sym_LT, anon_sym_GT,
       anon_sym_PIPE, anon_sym_AMP, anon_sym_GT_GT, anon_sym_SLASH, anon_sym_BANG, anon_sym_DOT,
       anon_sym_QMARK_DOT]), (ACTIONS 2932, 29, [anon_sym_RBRACE, anon_sym_LBRACK,
       anon_sym_COMMA, anon_sym_RBRACK, anon_sym_COLON, anon_sym_LPAREN, anon_sym_RPAREN,
       anon_sym_QMARK_QMARK, sym_equality_operator, anon_sym_LT_EQ, anon_sym_GT_EQ,
       anon_sym_CARET, anon_sym_LT_LT, anon_sym_GT_GT_GT, sym__additive_operator, anon_sym_STAR,
       anon_sym_PERCENT, anon_sym_TILDE_SLASH, anon_sym_is, anon_sym_as, anon_sym_DOT_DOT,
       anon_sym_QMARK_DOT_DOT, anon_sym_SEMI, anon_sym_EQ_GT, anon_sym_when, anon_sym_case,
       anon_sym_else, anon_sym_AMP_AMP, anon_sym_PIPE_PIPE])]),
     (41787, 8, [(ACTIONS 3, 1, [anon_sym_SLASH_SLASH]), (ACTIONS 5, 1, [anon_sym_SLASH_STAR]),
       (ACTIONS 7, 1, [anon_sym_SLASH_SLASH_SLASH]), (ACTIONS 9, 1, [sym__block_comment]),
       (ACTIONS 11, 1, [sym__documentation_block_comment]), (STATE 947, 2, [sym_comment,
       sym_documentation_comment]), (ACTIONS 2938, 10, [anon_sym_QMARK, anon_sym_LT, anon_sym_GT,
       anon_sym_PIPE, anon_sym_AMP, anon_sym_GT_GT, anon_sym_SLASH, anon_sym_BANG, anon_sym_DOT,
       anon_sym_QMARK_DOT]), (ACTIONS 2936, 29, [anon_sym_RBRACE, anon_sym_LBRACK,
       anon_sym_COMMA, anon_sym_RBRACK, anon_sym_COLON, anon_sym_LPAREN, anon_sym_RPAREN,
       anon_sym_QMARK_QMARK, sym_equality_operator, anon_sym_LT_EQ, anon_sym_GT_EQ,
       anon_sym_CARET, anon_sym_LT_LT, anon_sym_GT_GT_GT, sym__additive_operator, anon_sym_STAR,
       anon_sym_PERCENT, anon_sym_TILDE_SLASH, anon_sym_is, anon_sym_as, anon_sym_DOT_DOT,
       anon_sym_QMARK_DOT_DOT, anon_sym_SEMI, anon_sym_EQ_GT, anon_sym_when, anon_sym_case,
       anon_sym_else, anon_sym_AMP_AMP, anon_sym_PIPE_PIPE])])]"

lemma small_run_303: "small_run 946 41724 ts_small_parse_table_303 948 41850"
  by (simp add: small_simps ts_small_parse_table_303_def)

definition ts_small_parse_table_304 :: "small_group list" where
  "ts_small_parse_table_304 = [
     (41850, 8, [(ACTIONS 3, 1, [anon_sym_SLASH_SLASH]), (ACTIONS 5, 1, [anon_sym_SLASH_STAR]),
       (ACTIONS 7, 1, [anon_sym_SLASH_SLASH_SLASH]), (ACTIONS 9, 1, [sym__block_comment]),
       (ACTIONS 11, 1, [sym__documentation_block_comment]), (STATE 948, 2, [sym_comment,
       sym_documentation_comment]), (ACTIONS 2942, 10, [anon_sym_QMARK, anon_sym_LT, anon_sym_GT,
       anon_sym_PIPE, anon_sym_AMP, anon_sym_GT_GT, anon_sym_SLASH, anon_sym_BANG, anon_sym_DOT,
       anon_sym_QMARK_DOT]), (ACTIONS 2940, 29, [anon_sym_RBRACE, anon_sym_LBRACK,
       anon_sym_COMMA, anon_sym_RBRACK, anon_sym_COLON, anon_sym_LPAREN, anon_sym_RPAREN,
       anon_sym_QMARK_QMARK, sym_equality_operator, anon_sym_LT_EQ, anon_sym_GT_EQ,
       anon_sym_CARET, anon_sym_LT_LT, anon_sym_GT_GT_GT, sym__additive_operator, anon_sym_STAR,
       anon_sym_PERCENT, anon_sym_TILDE_SLASH, anon_sym_is, anon_sym_as, anon_sym_DOT_DOT,
       anon_sym_QMARK_DOT_DOT, anon_sym_SEMI, anon_sym_EQ_GT, anon_sym_when, anon_sym_case,
       anon_sym_else, anon_sym_AMP_AMP, anon_sym_PIPE_PIPE])]),
     (41913, 8, [(ACTIONS 3, 1, [anon_sym_SLASH_SLASH]), (ACTIONS 5, 1, [anon_sym_SLASH_STAR]),
       (ACTIONS 7, 1, [anon_sym_SLASH_SLASH_SLASH]), (ACTIONS 9, 1, [sym__block_comment]),
       (ACTIONS 11, 1, [sym__documentation_block_comment]), (STATE 949, 2, [sym_comment,
       sym_documentation_comment]), (ACTIONS 2946, 10, [anon_sym_QMARK, anon_sym_LT, anon_sym_GT,
       anon_sym_PIPE, anon_sym_AMP, anon_sym_GT_GT, anon_sym_SLASH, anon_sym_BANG, anon_sym_DOT,
       anon_sym_QMARK_DOT]), (ACTIONS 2944, 29, [anon_sym_RBRACE, anon_sym_LBRACK,
       anon_sym_COMMA, anon_sym_RBRACK, anon_sym_COLON, anon_sym_LPAREN, anon_sym_RPAREN,
       anon_sym_QMARK_QMARK, sym_equality_operator, anon_sym_LT_EQ, anon_sym_GT_EQ,
       anon_sym_CARET, anon_sym_LT_LT, anon_sym_GT_GT_GT, sym__additive_operator, anon_sym_STAR,
       anon_sym_PERCENT, anon_sym_TILDE_SLASH, anon_sym_is, anon_sym_as, anon_sym_DOT_DOT,
       anon_sym_QMARK_DOT_DOT, anon_sym_SEMI, anon_sym_EQ_GT, anon_sym_when, anon_sym_case,
       anon_sym_else, anon_sym_AMP_AMP, anon_sym_PIPE_PIPE])])]"

lemma small_run_304: "small_run 948 41850 ts_small_parse_table_304 950 41976"
  by (simp add: small_simps ts_small_parse_table_304_def)

definition ts_small_parse_table_305 :: "small_group list" where
  "ts_small_parse_table_305 = [
     (41976, 8, [(ACTIONS 3, 1, [anon_sym_SLASH_SLASH]), (ACTIONS 5, 1, [anon_sym_SLASH_STAR]),
       (ACTIONS 7, 1, [anon_sym_SLASH_SLASH_SLASH]), (ACTIONS 9, 1, [sym__block_comment]),
       (ACTIONS 11, 1, [sym__documentation_block_comment]), (STATE 950, 2, [sym_comment,
       sym_documentation_comment]), (ACTIONS 2950, 10, [anon_sym_QMARK, anon_sym_LT, anon_sym_GT,
       anon_sym_PIPE, anon_sym_AMP, anon_sym_GT_GT, anon_sym_SLASH, anon_sym_BANG, anon_sym_DOT,
       anon_sym_QMARK_DOT]), (ACTIONS 2948, 29, [anon_sym_RBRACE, anon_sym_LBRACK,
       anon_sym_COMMA, anon_sym_RBRACK, anon_sym_COLON, anon_sym_LPAREN, anon_sym_RPAREN,
       anon_sym_QMARK_QMARK, sym_equality_operator, anon_sym_LT_EQ, anon_sym_GT_EQ,
       anon_sym_CARET, anon_sym_LT_LT, anon_sym_GT_GT_GT, sym__additive_operator, anon_sym_STAR,
       anon_sym_PERCENT, anon_sym_TILDE_SLASH, anon_sym_is, anon_sym_as, anon_sym_DOT_DOT,
       anon_sym_QMARK_DOT_DOT, anon_sym_SEMI, anon_sym_EQ_GT, anon_sym_when, anon_sym_case,
       anon_sym_else, anon_sym_AMP_AMP, anon_sym_PIPE_PIPE])]),
     (42039, 8, [(ACTIONS 3, 1, [anon_sym_SLASH_SLASH]), (ACTIONS 5, 1, [anon_sym_SLASH_STAR]),
       (ACTIONS 7, 1, [anon_sym_SLASH_SLASH_SLASH]), (ACTIONS 9, 1, [sym__block_comment]),
       (ACTIONS 11, 1, [sym__documentation_block_comment]), (STATE 951, 2, [sym_comment,
       sym_documentation_comment]), (ACTIONS 2954, 10, [anon_sym_QMARK, anon_sym_LT, anon_sym_GT,
       anon_sym_PIPE, anon_sym_AMP, anon_sym_GT_GT, anon_sym_SLASH, anon_sym_BANG, anon_sym_DOT,
       anon_sym_QMARK_DOT]), (ACTIONS 2952, 29, [anon_sym_RBRACE, anon_sym_LBRACK,
       anon_sym_COMMA, anon_sym_RBRACK, anon_sym_COLON, anon_sym_LPAREN, anon_sym_RPAREN,
       anon_sym_QMARK_QMARK, sym_equality_operator, anon_sym_LT_EQ, anon_sym_GT_EQ,
       anon_sym_CARET, anon_sym_LT_LT, anon_sym_GT_GT_GT, sym__additive_operator, anon_sym_STAR,
       anon_sym_PERCENT, anon_sym_TILDE_SLASH, anon_sym_is, anon_sym_as, anon_sym_DOT_DOT,
       anon_sym_QMARK_DOT_DOT, anon_sym_SEMI, anon_sym_EQ_GT, anon_sym_when, anon_sym_case,
       anon_sym_else, anon_sym_AMP_AMP, anon_sym_PIPE_PIPE])])]"

lemma small_run_305: "small_run 950 41976 ts_small_parse_table_305 952 42102"
  by (simp add: small_simps ts_small_parse_table_305_def)

definition ts_small_parse_table_306 :: "small_group list" where
  "ts_small_parse_table_306 = [
     (42102, 8, [(ACTIONS 3, 1, [anon_sym_SLASH_SLASH]), (ACTIONS 5, 1, [anon_sym_SLASH_STAR]),
       (ACTIONS 7, 1, [anon_sym_SLASH_SLASH_SLASH]), (ACTIONS 9, 1, [sym__block_comment]),
       (ACTIONS 11, 1, [sym__documentation_block_comment]), (STATE 952, 2, [sym_comment,
       sym_documentation_comment]), (ACTIONS 2958, 10, [anon_sym_QMARK, anon_sym_LT, anon_sym_GT,
       anon_sym_PIPE, anon_sym_AMP, anon_sym_GT_GT, anon_sym_SLASH, anon_sym_BANG, anon_sym_DOT,
       anon_sym_QMARK_DOT]), (ACTIONS 2956, 29, [anon_sym_RBRACE, anon_sym_LBRACK,
       anon_sym_COMMA, anon_sym_RBRACK, anon_sym_COLON, anon_sym_LPAREN, anon_sym_RPAREN,
       anon_sym_QMARK_QMARK, sym_equality_operator, anon_sym_LT_EQ, anon_sym_GT_EQ,
       anon_sym_CARET, anon_sym_LT_LT, anon_sym_GT_GT_GT, sym__additive_operator, anon_sym_STAR,
       anon_sym_PERCENT, anon_sym_TILDE_SLASH, anon_sym_is, anon_sym_as, anon_sym_DOT_DOT,
       anon_sym_QMARK_DOT_DOT, anon_sym_SEMI, anon_sym_EQ_GT, anon_sym_when, anon_sym_case,
       anon_sym_else, anon_sym_AMP_AMP, anon_sym_PIPE_PIPE])]),
     (42165, 8, [(ACTIONS 3, 1, [anon_sym_SLASH_SLASH]), (ACTIONS 5, 1, [anon_sym_SLASH_STAR]),
       (ACTIONS 7, 1, [anon_sym_SLASH_SLASH_SLASH]), (ACTIONS 9, 1, [sym__block_comment]),
       (ACTIONS 11, 1, [sym__documentation_block_comment]), (STATE 953, 2, [sym_comment,
       sym_documentation_comment]), (ACTIONS 2962, 10, [anon_sym_QMARK, anon_sym_LT, anon_sym_GT,
       anon_sym_PIPE, anon_sym_AMP, anon_sym_GT_GT, anon_sym_SLASH, anon_sym_BANG, anon_sym_DOT,
       anon_sym_QMARK_DOT]), (ACTIONS 2960, 29, [anon_sym_RBRACE, anon_sym_LBRACK,
       anon_sym_COMMA, anon_sym_RBRACK, anon_sym_COLON, anon_sym_LPAREN, anon_sym_RPAREN,
       anon_sym_QMARK_QMARK, sym_equality_operator, anon_sym_LT_EQ, anon_sym_GT_EQ,
       anon_sym_CARET, anon_sym_LT_LT, anon_sym_GT_GT_GT, sym__additive_operator, anon_sym_STAR,
       anon_sym_PERCENT, anon_sym_TILDE_SLASH, anon_sym_is, anon_sym_as, anon_sym_DOT_DOT,
       anon_sym_QMARK_DOT_DOT, anon_sym_SEMI, anon_sym_EQ_GT, anon_sym_when, anon_sym_case,
       anon_sym_else, anon_sym_AMP_AMP, anon_sym_PIPE_PIPE])])]"

lemma small_run_306: "small_run 952 42102 ts_small_parse_table_306 954 42228"
  by (simp add: small_simps ts_small_parse_table_306_def)

definition ts_small_parse_table_307 :: "small_group list" where
  "ts_small_parse_table_307 = [
     (42228, 8, [(ACTIONS 3, 1, [anon_sym_SLASH_SLASH]), (ACTIONS 5, 1, [anon_sym_SLASH_STAR]),
       (ACTIONS 7, 1, [anon_sym_SLASH_SLASH_SLASH]), (ACTIONS 9, 1, [sym__block_comment]),
       (ACTIONS 11, 1, [sym__documentation_block_comment]), (STATE 954, 2, [sym_comment,
       sym_documentation_comment]), (ACTIONS 2966, 10, [anon_sym_QMARK, anon_sym_LT, anon_sym_GT,
       anon_sym_PIPE, anon_sym_AMP, anon_sym_GT_GT, anon_sym_SLASH, anon_sym_BANG, anon_sym_DOT,
       anon_sym_QMARK_DOT]), (ACTIONS 2964, 29, [anon_sym_RBRACE, anon_sym_LBRACK,
       anon_sym_COMMA, anon_sym_RBRACK, anon_sym_COLON, anon_sym_LPAREN, anon_sym_RPAREN,
       anon_sym_QMARK_QMARK, sym_equality_operator, anon_sym_LT_EQ, anon_sym_GT_EQ,
       anon_sym_CARET, anon_sym_LT_LT, anon_sym_GT_GT_GT, sym__additive_operator, anon_sym_STAR,
       anon_sym_PERCENT, anon_sym_TILDE_SLASH, anon_sym_is, anon_sym_as, anon_sym_DOT_DOT,
       anon_sym_QMARK_DOT_DOT, anon_sym_SEMI, anon_sym_EQ_GT, anon_sym_when, anon_sym_case,
       anon_sym_else, anon_sym_AMP_AMP, anon_sym_PIPE_PIPE])]),
     (42291, 8, [(ACTIONS 3, 1, [anon_sym_SLASH_SLASH]), (ACTIONS 5, 1, [anon_sym_SLASH_STAR]),
       (ACTIONS 7, 1, [anon_sym_SLASH_SLASH_SLASH]), (ACTIONS 9, 1, [sym__block_comment]),
       (ACTIONS 11, 1, [sym__documentation_block_comment]), (STATE 955, 2, [sym_comment,
       sym_documentation_comment]), (ACTIONS 2970, 10, [anon_sym_QMARK, anon_sym_LT, anon_sym_GT,
       anon_sym_PIPE, anon_sym_AMP, anon_sym_GT_GT, anon_sym_SLASH, anon_sym_BANG, anon_sym_DOT,
       anon_sym_QMARK_DOT]), (ACTIONS 2968, 29, [anon_sym_RBRACE, anon_sym_LBRACK,
       anon_sym_COMMA, anon_sym_RBRACK, anon_sym_COLON, anon_sym_LPAREN, anon_sym_RPAREN,
       anon_sym_QMARK_QMARK, sym_equality_operator, anon_sym_LT_EQ, anon_sym_GT_EQ,
       anon_sym_CARET, anon_sym_LT_LT, anon_sym_GT_GT_GT, sym__additive_operator, anon_sym_STAR,
       anon_sym_PERCENT, anon_sym_TILDE_SLASH, anon_sym_is, anon_sym_as, anon_sym_DOT_DOT,
       anon_sym_QMARK_DOT_DOT, anon_sym_SEMI, anon_sym_EQ_GT, anon_sym_when, anon_sym_case,
       anon_sym_else, anon_sym_AMP_AMP, anon_sym_PIPE_PIPE])])]"

lemma small_run_307: "small_run 954 42228 ts_small_parse_table_307 956 42354"
  by (simp add: small_simps ts_small_parse_table_307_def)

definition ts_small_parse_table_308 :: "small_group list" where
  "ts_small_parse_table_308 = [
     (42354, 8, [(ACTIONS 3, 1, [anon_sym_SLASH_SLASH]), (ACTIONS 5, 1, [anon_sym_SLASH_STAR]),
       (ACTIONS 7, 1, [anon_sym_SLASH_SLASH_SLASH]), (ACTIONS 9, 1, [sym__block_comment]),
       (ACTIONS 11, 1, [sym__documentation_block_comment]), (STATE 956, 2, [sym_comment,
       sym_documentation_comment]), (ACTIONS 2974, 10, [anon_sym_QMARK, anon_sym_LT, anon_sym_GT,
       anon_sym_PIPE, anon_sym_AMP, anon_sym_GT_GT, anon_sym_SLASH, anon_sym_BANG, anon_sym_DOT,
       anon_sym_QMARK_DOT]), (ACTIONS 2972, 29, [anon_sym_RBRACE, anon_sym_LBRACK,
       anon_sym_COMMA, anon_sym_RBRACK, anon_sym_COLON, anon_sym_LPAREN, anon_sym_RPAREN,
       anon_sym_QMARK_QMARK, sym_equality_operator, anon_sym_LT_EQ, anon_sym_GT_EQ,
       anon_sym_CARET, anon_sym_LT_LT, anon_sym_GT_GT_GT, sym__additive_operator, anon_sym_STAR,
       anon_sym_PERCENT, anon_sym_TILDE_SLASH, anon_sym_is, anon_sym_as, anon_sym_DOT_DOT,
       anon_sym_QMARK_DOT_DOT, anon_sym_SEMI, anon_sym_EQ_GT, anon_sym_when, anon_sym_case,
       anon_sym_else, anon_sym_AMP_AMP, anon_sym_PIPE_PIPE])]),
     (42417, 8, [(ACTIONS 3, 1, [anon_sym_SLASH_SLASH]), (ACTIONS 5, 1, [anon_sym_SLASH_STAR]),
       (ACTIONS 7, 1, [anon_sym_SLASH_SLASH_SLASH]), (ACTIONS 9, 1, [sym__block_comment]),
       (ACTIONS 11, 1, [sym__documentation_block_comment]), (STATE 957, 2, [sym_comment,
       sym_documentation_comment]), (ACTIONS 2978, 10, [anon_sym_QMARK, anon_sym_LT, anon_sym_GT,
       anon_sym_PIPE, anon_sym_AMP, anon_sym_GT_GT, anon_sym_SLASH, anon_sym_BANG, anon_sym_DOT,
       anon_sym_QMARK_DOT]), (ACTIONS 2976, 29, [anon_sym_RBRACE, anon_sym_LBRACK,
       anon_sym_COMMA, anon_sym_RBRACK, anon_sym_COLON, anon_sym_LPAREN, anon_sym_RPAREN,
       anon_sym_QMARK_QMARK, sym_equality_operator, anon_sym_LT_EQ, anon_sym_GT_EQ,
       anon_sym_CARET, anon_sym_LT_LT, anon_sym_GT_GT_GT, sym__additive_operator, anon_sym_STAR,
       anon_sym_PERCENT, anon_sym_TILDE_SLASH, anon_sym_is, anon_sym_as, anon_sym_DOT_DOT,
       anon_sym_QMARK_DOT_DOT, anon_sym_SEMI, anon_sym_EQ_GT, anon_sym_when, anon_sym_case,
       anon_sym_else, anon_sym_AMP_AMP, anon_sym_PIPE_PIPE])])]"

lemma small_run_308: "small_run 956 42354 ts_small_parse_table_308 958 42480"
  by (simp add: small_simps ts_small_parse_table_308_def)

definition ts_small_parse_table_309 :: "small_group list" where
  "ts_small_parse_table_309 = [
     (42480, 8, [(ACTIONS 3, 1, [anon_sym_SLASH_SLASH]), (ACTIONS 5, 1, [anon_sym_SLASH_STAR]),
       (ACTIONS 7, 1, [anon_sym_SLASH_SLASH_SLASH]), (ACTIONS 9, 1, [sym__block_comment]),
       (ACTIONS 11, 1, [sym__documentation_block_comment]), (STATE 958, 2, [sym_comment,
       sym_documentation_comment]), (ACTIONS 2982, 10, [anon_sym_QMARK, anon_sym_LT, anon_sym_GT,
       anon_sym_PIPE, anon_sym_AMP, anon_sym_GT_GT, anon_sym_SLASH, anon_sym_BANG, anon_sym_DOT,
       anon_sym_QMARK_DOT]), (ACTIONS 2980, 29, [anon_sym_RBRACE, anon_sym_LBRACK,
       anon_sym_COMMA, anon_sym_RBRACK, anon_sym_COLON, anon_sym_LPAREN, anon_sym_RPAREN,
       anon_sym_QMARK_QMARK, sym_equality_operator, anon_sym_LT_EQ, anon_sym_GT_EQ,
       anon_sym_CARET, anon_sym_LT_LT, anon_sym_GT_GT_GT, sym__additive_operator, anon_sym_STAR,
       anon_sym_PERCENT, anon_sym_TILDE_SLASH, anon_sym_is, anon_sym_as, anon_sym_DOT_DOT,
       anon_sym_QMARK_DOT_DOT, anon_sym_SEMI, anon_sym_EQ_GT, anon_sym_when, anon_sym_case,
       anon_sym_else, anon_sym_AMP_AMP, anon_sym_PIPE_PIPE])]),
     (42543, 8, [(ACTIONS 3, 1, [anon_sym_SLASH_SLASH]), (ACTIONS 5, 1, [anon_sym_SLASH_STAR]),
       (ACTIONS 7, 1, [anon_sym_SLASH_SLASH_SLASH]), (ACTIONS 9, 1, [sym__block_comment]),
       (ACTIONS 11, 1, [sym__documentation_block_comment]), (STATE 959, 2, [sym_comment,
       sym_documentation_comment]), (ACTIONS 2764, 10, [anon_sym_QMARK, anon_sym_LT, anon_sym_GT,
       anon_sym_PIPE, anon_sym_AMP, anon_sym_GT_GT, anon_sym_SLASH, anon_sym_BANG, anon_sym_DOT,
       anon_sym_QMARK_DOT]), (ACTIONS 2762, 29, [anon_sym_RBRACE, anon_sym_LBRACK,
       anon_sym_COMMA, anon_sym_RBRACK, anon_sym_COLON, anon_sym_LPAREN, anon_sym_RPAREN,
       anon_sym_QMARK_QMARK, sym_equality_operator, anon_sym_LT_EQ, anon_sym_GT_EQ,
       anon_sym_CARET, anon_sym_LT_LT, anon_sym_GT_GT_GT, sym__additive_operator, anon_sym_STAR,
       anon_sym_PERCENT, anon_sym_TILDE_SLASH, anon_sym_is, anon_sym_as, anon_sym_DOT_DOT,
       anon_sym_QMARK_DOT_DOT, anon_sym_SEMI, anon_sym_EQ_GT, anon_sym_when, anon_sym_case,
       anon_sym_else, anon_sym_AMP_AMP, anon_sym_PIPE_PIPE])])]"

lemma small_run_309: "small_run 958 42480 ts_small_parse_table_309 960 42606"
  by (simp add: small_simps ts_small_parse_table_309_def)

definition ts_small_parse_table_310 :: "small_group list" where
  "ts_small_parse_table_310 = [
     (42606, 8, [(ACTIONS 3, 1, [anon_sym_SLASH_SLASH]), (ACTIONS 5, 1, [anon_sym_SLASH_STAR]),
       (ACTIONS 7, 1, [anon_sym_SLASH_SLASH_SLASH]), (ACTIONS 9, 1, [sym__block_comment]),
       (ACTIONS 11, 1, [sym__documentation_block_comment]), (STATE 960, 2, [sym_comment,
       sym_documentation_comment]), (ACTIONS 2986, 10, [anon_sym_QMARK, anon_sym_LT, anon_sym_GT,
       anon_sym_PIPE, anon_sym_AMP, anon_sym_GT_GT, anon_sym_SLASH, anon_sym_BANG, anon_sym_DOT,
       anon_sym_QMARK_DOT]), (ACTIONS 2984, 29, [anon_sym_RBRACE, anon_sym_LBRACK,
       anon_sym_COMMA, anon_sym_RBRACK, anon_sym_COLON, anon_sym_LPAREN, anon_sym_RPAREN,
       anon_sym_QMARK_QMARK, sym_equality_operator, anon_sym_LT_EQ, anon_sym_GT_EQ,
       anon_sym_CARET, anon_sym_LT_LT, anon_sym_GT_GT_GT, sym__additive_operator, anon_sym_STAR,
       anon_sym_PERCENT, anon_sym_TILDE_SLASH, anon_sym_is, anon_sym_as, anon_sym_DOT_DOT,
       anon_sym_QMARK_DOT_DOT, anon_sym_SEMI, anon_sym_EQ_GT, anon_sym_when, anon_sym_case,
       anon_sym_else, anon_sym_AMP_AMP, anon_sym_PIPE_PIPE])]),
     (42669, 12, [(ACTIONS 3, 1, [anon_sym_SLASH_SLASH]), (ACTIONS 5, 1,
       [anon_sym_SLASH_STAR]), (ACTIONS 7, 1, [anon_sym_SLASH_SLASH_SLASH]), (ACTIONS 9, 1,
       [sym__block_comment]), (ACTIONS 11, 1, [sym__documentation_block_comment]), (ACTIONS 2465,
       1, [anon_sym_GT_GT]), (STATE 319, 1, [sym_shift_operator]), (STATE 1397, 1,
       [sym__shift_operator]), (ACTIONS 2462, 2, [anon_sym_LT_LT, anon_sym_GT_GT_GT]), (STATE
       961, 3, [sym_comment, sym_documentation_comment, aux_sym_shift_expression_repeat1]),
       (ACTIONS 1359, 11, [anon_sym_QMARK, anon_sym_LT, anon_sym_GT, anon_sym_PIPE, anon_sym_AMP,
       anon_sym_SLASH, anon_sym_BANG, anon_sym_as, anon_sym_DOT, anon_sym_QMARK_DOT,
       anon_sym_async]), (ACTIONS 1357, 22, [anon_sym_LBRACE, anon_sym_LBRACK, anon_sym_COMMA,
       anon_sym_LPAREN, anon_sym_QMARK_QMARK, sym_equality_operator, anon_sym_LT_EQ,
       anon_sym_GT_EQ, anon_sym_CARET, sym__additive_operator, anon_sym_STAR, anon_sym_PERCENT,
       anon_sym_TILDE_SLASH, anon_sym_is, anon_sym_DOT_DOT, anon_sym_QMARK_DOT_DOT,
       anon_sym_SEMI, anon_sym_EQ_GT, anon_sym_async_STAR, anon_sym_sync_STAR, anon_sym_AMP_AMP,
       anon_sym_PIPE_PIPE])])]"

lemma small_run_310: "small_run 960 42606 ts_small_parse_table_310 962 42740"
  by (simp add: small_simps ts_small_parse_table_310_def)

definition ts_small_parse_table_311 :: "small_group list" where
  "ts_small_parse_table_311 = [
     (42740, 8, [(ACTIONS 3, 1, [anon_sym_SLASH_SLASH]), (ACTIONS 5, 1, [anon_sym_SLASH_STAR]),
       (ACTIONS 7, 1, [anon_sym_SLASH_SLASH_SLASH]), (ACTIONS 9, 1, [sym__block_comment]),
       (ACTIONS 11, 1, [sym__documentation_block_comment]), (STATE 962, 2, [sym_comment,
       sym_documentation_comment]), (ACTIONS 1332, 10, [anon_sym_QMARK, anon_sym_LT, anon_sym_GT,
       anon_sym_PIPE, anon_sym_AMP, anon_sym_GT_GT, anon_sym_SLASH, anon_sym_BANG, anon_sym_DOT,
       anon_sym_QMARK_DOT]), (ACTIONS 1322, 29, [anon_sym_RBRACE, anon_sym_LBRACK,
       anon_sym_COMMA, anon_sym_RBRACK, anon_sym_COLON, anon_sym_LPAREN, anon_sym_RPAREN,
       anon_sym_QMARK_QMARK, sym_equality_operator, anon_sym_LT_EQ, anon_sym_GT_EQ,
       anon_sym_CARET, anon_sym_LT_LT, anon_sym_GT_GT_GT, sym__additive_operator, anon_sym_STAR,
       anon_sym_PERCENT, anon_sym_TILDE_SLASH, anon_sym_is, anon_sym_as, anon_sym_DOT_DOT,
       anon_sym_QMARK_DOT_DOT, anon_sym_SEMI, anon_sym_EQ_GT, anon_sym_when, anon_sym_case,
       anon_sym_else, anon_sym_AMP_AMP, anon_sym_PIPE_PIPE])]),
     (42803, 8, [(ACTIONS 3, 1, [anon_sym_SLASH_SLASH]), (ACTIONS 5, 1, [anon_sym_SLASH_STAR]),
       (ACTIONS 7, 1, [anon_sym_SLASH_SLASH_SLASH]), (ACTIONS 9, 1, [sym__block_comment]),
       (ACTIONS 11, 1, [sym__documentation_block_comment]), (STATE 963, 2, [sym_comment,
       sym_documentation_comment]), (ACTIONS 2990, 10, [anon_sym_QMARK, anon_sym_LT, anon_sym_GT,
       anon_sym_PIPE, anon_sym_AMP, anon_sym_GT_GT, anon_sym_SLASH, anon_sym_BANG, anon_sym_DOT,
       anon_sym_QMARK_DOT]), (ACTIONS 2988, 29, [anon_sym_RBRACE, anon_sym_LBRACK,
       anon_sym_COMMA, anon_sym_RBRACK, anon_sym_COLON, anon_sym_LPAREN, anon_sym_RPAREN,
       anon_sym_QMARK_QMARK, sym_equality_operator, anon_sym_LT_EQ, anon_sym_GT_EQ,
       anon_sym_CARET, anon_sym_LT_LT, anon_sym_GT_GT_GT, sym__additive_operator, anon_sym_STAR,
       anon_sym_PERCENT, anon_sym_TILDE_SLASH, anon_sym_is, anon_sym_as, anon_sym_DOT_DOT,
       anon_sym_QMARK_DOT_DOT, anon_sym_SEMI, anon_sym_EQ_GT, anon_sym_when, anon_sym_case,
       anon_sym_else, anon_sym_AMP_AMP, anon_sym_PIPE_PIPE])])]"

lemma small_run_311: "small_run 962 42740 ts_small_parse_table_311 964 42866"
  by (simp add: small_simps ts_small_parse_table_311_def)

definition ts_small_parse_table_312 :: "small_group list" where
  "ts_small_parse_table_312 = [
     (42866, 8, [(ACTIONS 3, 1, [anon_sym_SLASH_SLASH]), (ACTIONS 5, 1, [anon_sym_SLASH_STAR]),
       (ACTIONS 7, 1, [anon_sym_SLASH_SLASH_SLASH]), (ACTIONS 9, 1, [sym__block_comment]),
       (ACTIONS 11, 1, [sym__documentation_block_comment]), (STATE 964, 2, [sym_comment,
       sym_documentation_comment]), (ACTIONS 2994, 10, [anon_sym_QMARK, anon_sym_LT, anon_sym_GT,
       anon_sym_PIPE, anon_sym_AMP, anon_sym_GT_GT, anon_sym_SLASH, anon_sym_BANG, anon_sym_DOT,
       anon_sym_QMARK_DOT]), (ACTIONS 2992, 29, [anon_sym_RBRACE, anon_sym_LBRACK,
       anon_sym_COMMA, anon_sym_RBRACK, anon_sym_COLON, anon_sym_LPAREN, anon_sym_RPAREN,
       anon_sym_QMARK_QMARK, sym_equality_operator, anon_sym_LT_EQ, anon_sym_GT_EQ,
       anon_sym_CARET, anon_sym_LT_LT, anon_sym_GT_GT_GT, sym__additive_operator, anon_sym_STAR,
       anon_sym_PERCENT, anon_sym_TILDE_SLASH, anon_sym_is, anon_sym_as, anon_sym_DOT_DOT,
       anon_sym_QMARK_DOT_DOT, anon_sym_SEMI, anon_sym_EQ_GT, anon_sym_when, anon_sym_case,
       anon_sym_else, anon_sym_AMP_AMP, anon_sym_PIPE_PIPE])]),
     (42929, 16, [(ACTIONS 3, 1, [anon_sym_SLASH_SLASH]), (ACTIONS 5, 1,
       [anon_sym_SLASH_STAR]), (ACTIONS 7, 1, [anon_sym_SLASH_SLASH_SLASH]), (ACTIONS 9, 1,
       [sym__block_comment]), (ACTIONS 11, 1, [sym__documentation_block_comment]), (ACTIONS 2996,
       1, [anon_sym_LBRACK]), (ACTIONS 2999, 1, [anon_sym_QMARK]), (ACTIONS 3002, 1,
       [anon_sym_DOT]), (ACTIONS 3005, 1, [anon_sym_QMARK_DOT]), (STATE 997, 1,
       [sym__assignable_selector]), (STATE 1141, 1, [sym__cascade_subsection]), (STATE 1145, 1,
       [sym_index_selector]), (ACTIONS 1297, 2, [anon_sym_EQ, anon_sym_async]), (STATE 1138, 2,
       [sym_unconditional_assignable_selector, sym_conditional_assignable_selector]), (STATE 965,
       3, [sym_comment, sym_documentation_comment, aux_sym_cascade_section_repeat2]), (ACTIONS
       1292, 27, [anon_sym_LBRACE, anon_sym_RBRACE, anon_sym_COMMA, anon_sym_RBRACK,
       anon_sym_COLON, anon_sym_RPAREN, anon_sym_PLUS_EQ, anon_sym_DASH_EQ, anon_sym_STAR_EQ,
       anon_sym_SLASH_EQ, anon_sym_PERCENT_EQ, anon_sym_TILDE_SLASH_EQ, anon_sym_LT_LT_EQ,
       anon_sym_GT_GT_EQ, anon_sym_GT_GT_GT_EQ, anon_sym_AMP_EQ, anon_sym_CARET_EQ,
       anon_sym_PIPE_EQ, anon_sym_QMARK_QMARK_EQ, anon_sym_DOT_DOT, anon_sym_QMARK_DOT_DOT,
       anon_sym_SEMI, anon_sym_EQ_GT, anon_sym_case, anon_sym_else, anon_sym_async_STAR,
       anon_sym_sync_STAR])])]"

lemma small_run_312: "small_run 964 42866 ts_small_parse_table_312 966 43008"
  by (simp add: small_simps ts_small_parse_table_312_def)

definition ts_small_parse_table_313 :: "small_group list" where
  "ts_small_parse_table_313 = [
     (43008, 8, [(ACTIONS 3, 1, [anon_sym_SLASH_SLASH]), (ACTIONS 5, 1, [anon_sym_SLASH_STAR]),
       (ACTIONS 7, 1, [anon_sym_SLASH_SLASH_SLASH]), (ACTIONS 9, 1, [sym__block_comment]),
       (ACTIONS 11, 1, [sym__documentation_block_comment]), (STATE 966, 2, [sym_comment,
       sym_documentation_comment]), (ACTIONS 3010, 10, [anon_sym_QMARK, anon_sym_LT, anon_sym_GT,
       anon_sym_PIPE, anon_sym_AMP, anon_sym_GT_GT, anon_sym_SLASH, anon_sym_BANG, anon_sym_DOT,
       anon_sym_QMARK_DOT]), (ACTIONS 3008, 29, [anon_sym_RBRACE, anon_sym_LBRACK,
       anon_sym_COMMA, anon_sym_RBRACK, anon_sym_COLON, anon_sym_LPAREN, anon_sym_RPAREN,
       anon_sym_QMARK_QMARK, sym_equality_operator, anon_sym_LT_EQ, anon_sym_GT_EQ,
       anon_sym_CARET, anon_sym_LT_LT, anon_sym_GT_GT_GT, sym__additive_operator, anon_sym_STAR,
       anon_sym_PERCENT, anon_sym_TILDE_SLASH, anon_sym_is, anon_sym_as, anon_sym_DOT_DOT,
       anon_sym_QMARK_DOT_DOT, anon_sym_SEMI, anon_sym_EQ_GT, anon_sym_when, anon_sym_case,
       anon_sym_else, anon_sym_AMP_AMP, anon_sym_PIPE_PIPE])]),
     (43071, 8, [(ACTIONS 3, 1, [anon_sym_SLASH_SLASH]), (ACTIONS 5, 1, [anon_sym_SLASH_STAR]),
       (ACTIONS 7, 1, [anon_sym_SLASH_SLASH_SLASH]), (ACTIONS 9, 1, [sym__block_comment]),
       (ACTIONS 11, 1, [sym__documentation_block_comment]), (STATE 967, 2, [sym_comment,
       sym_documentation_comment]), (ACTIONS 3014, 10, [anon_sym_QMARK, anon_sym_LT, anon_sym_GT,
       anon_sym_PIPE, anon_sym_AMP, anon_sym_GT_GT, anon_sym_SLASH, anon_sym_BANG, anon_sym_DOT,
       anon_sym_QMARK_DOT]), (ACTIONS 3012, 29, [anon_sym_RBRACE, anon_sym_LBRACK,
       anon_sym_COMMA, anon_sym_RBRACK, anon_sym_COLON, anon_sym_LPAREN, anon_sym_RPAREN,
       anon_sym_QMARK_QMARK, sym_equality_operator, anon_sym_LT_EQ, anon_sym_GT_EQ,
       anon_sym_CARET, anon_sym_LT_LT, anon_sym_GT_GT_GT, sym__additive_operator, anon_sym_STAR,
       anon_sym_PERCENT, anon_sym_TILDE_SLASH, anon_sym_is, anon_sym_as, anon_sym_DOT_DOT,
       anon_sym_QMARK_DOT_DOT, anon_sym_SEMI, anon_sym_EQ_GT, anon_sym_when, anon_sym_case,
       anon_sym_else, anon_sym_AMP_AMP, anon_sym_PIPE_PIPE])])]"

lemma small_run_313: "small_run 966 43008 ts_small_parse_table_313 968 43134"
  by (simp add: small_simps ts_small_parse_table_313_def)

definition ts_small_parse_table_314 :: "small_group list" where
  "ts_small_parse_table_314 = [
     (43134, 8, [(ACTIONS 3, 1, [anon_sym_SLASH_SLASH]), (ACTIONS 5, 1, [anon_sym_SLASH_STAR]),
       (ACTIONS 7, 1, [anon_sym_SLASH_SLASH_SLASH]), (ACTIONS 9, 1, [sym__block_comment]),
       (ACTIONS 11, 1, [sym__documentation_block_comment]), (STATE 968, 2, [sym_comment,
       sym_documentation_comment]), (ACTIONS 3018, 10, [anon_sym_QMARK, anon_sym_LT, anon_sym_GT,
       anon_sym_PIPE, anon_sym_AMP, anon_sym_GT_GT, anon_sym_SLASH, anon_sym_BANG, anon_sym_DOT,
       anon_sym_QMARK_DOT]), (ACTIONS 3016, 29, [anon_sym_RBRACE, anon_sym_LBRACK,
       anon_sym_COMMA, anon_sym_RBRACK, anon_sym_COLON, anon_sym_LPAREN, anon_sym_RPAREN,
       anon_sym_QMARK_QMARK, sym_equality_operator, anon_sym_LT_EQ, anon_sym_GT_EQ,
       anon_sym_CARET, anon_sym_LT_LT, anon_sym_GT_GT_GT, sym__additive_operator, anon_sym_STAR,
       anon_sym_PERCENT, anon_sym_TILDE_SLASH, anon_sym_is, anon_sym_as, anon_sym_DOT_DOT,
       anon_sym_QMARK_DOT_DOT, anon_sym_SEMI, anon_sym_EQ_GT, anon_sym_when, anon_sym_case,
       anon_sym_else, anon_sym_AMP_AMP, anon_sym_PIPE_PIPE])]),
     (43197, 8, [(ACTIONS 3, 1, [anon_sym_SLASH_SLASH]), (ACTIONS 5, 1, [anon_sym_SLASH_STAR]),
       (ACTIONS 7, 1, [anon_sym_SLASH_SLASH_SLASH]), (ACTIONS 9, 1, [sym__block_comment]),
       (ACTIONS 11, 1, [sym__documentation_block_comment]), (STATE 969, 2, [sym_comment,
       sym_documentation_comment]), (ACTIONS 3022, 10, [anon_sym_QMARK, anon_sym_LT, anon_sym_GT,
       anon_sym_PIPE, anon_sym_AMP, anon_sym_GT_GT, anon_sym_SLASH, anon_sym_BANG, anon_sym_DOT,
       anon_sym_QMARK_DOT]), (ACTIONS 3020, 29, [anon_sym_RBRACE, anon_sym_LBRACK,
       anon_sym_COMMA, anon_sym_RBRACK, anon_sym_COLON, anon_sym_LPAREN, anon_sym_RPAREN,
       anon_sym_QMARK_QMARK, sym_equality_operator, anon_sym_LT_EQ, anon_sym_GT_EQ,
       anon_sym_CARET, anon_sym_LT_LT, anon_sym_GT_GT_GT, sym__additive_operator, anon_sym_STAR,
       anon_sym_PERCENT, anon_sym_TILDE_SLASH, anon_sym_is, anon_sym_as, anon_sym_DOT_DOT,
       anon_sym_QMARK_DOT_DOT, anon_sym_SEMI, anon_sym_EQ_GT, anon_sym_when, anon_sym_case,
       anon_sym_else, anon_sym_AMP_AMP, anon_sym_PIPE_PIPE])])]"

lemma small_run_314: "small_run 968 43134 ts_small_parse_table_314 970 43260"
  by (simp add: small_simps ts_small_parse_table_314_def)

definition ts_small_parse_table_315 :: "small_group list" where
  "ts_small_parse_table_315 = [
     (43260, 8, [(ACTIONS 3, 1, [anon_sym_SLASH_SLASH]), (ACTIONS 5, 1, [anon_sym_SLASH_STAR]),
       (ACTIONS 7, 1, [anon_sym_SLASH_SLASH_SLASH]), (ACTIONS 9, 1, [sym__block_comment]),
       (ACTIONS 11, 1, [sym__documentation_block_comment]), (STATE 970, 2, [sym_comment,
       sym_documentation_comment]), (ACTIONS 1659, 10, [anon_sym_QMARK, anon_sym_LT, anon_sym_GT,
       anon_sym_PIPE, anon_sym_AMP, anon_sym_GT_GT, anon_sym_SLASH, anon_sym_BANG, anon_sym_DOT,
       anon_sym_QMARK_DOT]), (ACTIONS 1657, 29, [anon_sym_RBRACE, anon_sym_LBRACK,
       anon_sym_COMMA, anon_sym_RBRACK, anon_sym_COLON, anon_sym_LPAREN, anon_sym_RPAREN,
       anon_sym_QMARK_QMARK, sym_equality_operator, anon_sym_LT_EQ, anon_sym_GT_EQ,
       anon_sym_CARET, anon_sym_LT_LT, anon_sym_GT_GT_GT, sym__additive_operator, anon_sym_STAR,
       anon_sym_PERCENT, anon_sym_TILDE_SLASH, anon_sym_is, anon_sym_as, anon_sym_DOT_DOT,
       anon_sym_QMARK_DOT_DOT, anon_sym_SEMI, anon_sym_EQ_GT, anon_sym_when, anon_sym_case,
       anon_sym_else, anon_sym_AMP_AMP, anon_sym_PIPE_PIPE])]),
     (43323, 8, [(ACTIONS 3, 1, [anon_sym_SLASH_SLASH]), (ACTIONS 5, 1, [anon_sym_SLASH_STAR]),
       (ACTIONS 7, 1, [anon_sym_SLASH_SLASH_SLASH]), (ACTIONS 9, 1, [sym__block_comment]),
       (ACTIONS 11, 1, [sym__documentation_block_comment]), (STATE 971, 2, [sym_comment,
       sym_documentation_comment]), (ACTIONS 1663, 10, [anon_sym_QMARK, anon_sym_LT, anon_sym_GT,
       anon_sym_PIPE, anon_sym_AMP, anon_sym_GT_GT, anon_sym_SLASH, anon_sym_BANG, anon_sym_DOT,
       anon_sym_QMARK_DOT]), (ACTIONS 1661, 29, [anon_sym_RBRACE, anon_sym_LBRACK,
       anon_sym_COMMA, anon_sym_RBRACK, anon_sym_COLON, anon_sym_LPAREN, anon_sym_RPAREN,
       anon_sym_QMARK_QMARK, sym_equality_operator, anon_sym_LT_EQ, anon_sym_GT_EQ,
       anon_sym_CARET, anon_sym_LT_LT, anon_sym_GT_GT_GT, sym__additive_operator, anon_sym_STAR,
       anon_sym_PERCENT, anon_sym_TILDE_SLASH, anon_sym_is, anon_sym_as, anon_sym_DOT_DOT,
       anon_sym_QMARK_DOT_DOT, anon_sym_SEMI, anon_sym_EQ_GT, anon_sym_when, anon_sym_case,
       anon_sym_else, anon_sym_AMP_AMP, anon_sym_PIPE_PIPE])])]"

lemma small_run_315: "small_run 970 43260 ts_small_parse_table_315 972 43386"
  by (simp add: small_simps ts_small_parse_table_315_def)

definition ts_small_parse_table_316 :: "small_group list" where
  "ts_small_parse_table_316 = [
     (43386, 12, [(ACTIONS 3, 1, [anon_sym_SLASH_SLASH]), (ACTIONS 5, 1,
       [anon_sym_SLASH_STAR]), (ACTIONS 7, 1, [anon_sym_SLASH_SLASH_SLASH]), (ACTIONS 9, 1,
       [sym__block_comment]), (ACTIONS 11, 1, [sym__documentation_block_comment]), (ACTIONS 2504,
       1, [anon_sym_SLASH]), (STATE 425, 1, [sym_multiplicative_operator]), (STATE 1416, 1,
       [sym__multiplicative_operator]), (ACTIONS 2501, 3, [anon_sym_STAR, anon_sym_PERCENT,
       anon_sym_TILDE_SLASH]), (STATE 972, 3, [sym_comment, sym_documentation_comment,
       aux_sym_multiplicative_expression_repeat1]), (ACTIONS 2499, 11, [anon_sym_QMARK,
       anon_sym_LT, anon_sym_GT, anon_sym_PIPE, anon_sym_AMP, anon_sym_GT_GT, anon_sym_BANG,
       anon_sym_as, anon_sym_DOT, anon_sym_QMARK_DOT, anon_sym_async]), (ACTIONS 2497, 21,
       [anon_sym_LBRACE, anon_sym_LBRACK, anon_sym_COMMA, anon_sym_LPAREN, anon_sym_QMARK_QMARK,
       sym_equality_operator, anon_sym_LT_EQ, anon_sym_GT_EQ, anon_sym_CARET, anon_sym_LT_LT,
       anon_sym_GT_GT_GT, sym__additive_operator, anon_sym_is, anon_sym_DOT_DOT,
       anon_sym_QMARK_DOT_DOT, anon_sym_SEMI, anon_sym_EQ_GT, anon_sym_async_STAR,
       anon_sym_sync_STAR, anon_sym_AMP_AMP, anon_sym_PIPE_PIPE])]),
     (43457, 8, [(ACTIONS 3, 1, [anon_sym_SLASH_SLASH]), (ACTIONS 5, 1, [anon_sym_SLASH_STAR]),
       (ACTIONS 7, 1, [anon_sym_SLASH_SLASH_SLASH]), (ACTIONS 9, 1, [sym__block_comment]),
       (ACTIONS 11, 1, [sym__documentation_block_comment]), (STATE 973, 2, [sym_comment,
       sym_documentation_comment]), (ACTIONS 3026, 10, [anon_sym_QMARK, anon_sym_LT, anon_sym_GT,
       anon_sym_PIPE, anon_sym_AMP, anon_sym_GT_GT, anon_sym_SLASH, anon_sym_BANG, anon_sym_DOT,
       anon_sym_QMARK_DOT]), (ACTIONS 3024, 29, [anon_sym_RBRACE, anon_sym_LBRACK,
       anon_sym_COMMA, anon_sym_RBRACK, anon_sym_COLON, anon_sym_LPAREN, anon_sym_RPAREN,
       anon_sym_QMARK_QMARK, sym_equality_operator, anon_sym_LT_EQ, anon_sym_GT_EQ,
       anon_sym_CARET, anon_sym_LT_LT, anon_sym_GT_GT_GT, sym__additive_operator, anon_sym_STAR,
       anon_sym_PERCENT, anon_sym_TILDE_SLASH, anon_sym_is, anon_sym_as, anon_sym_DOT_DOT,
       anon_sym_QMARK_DOT_DOT, anon_sym_SEMI, anon_sym_EQ_GT, anon_sym_when, anon_sym_case,
       anon_sym_else, anon_sym_AMP_AMP, anon_sym_PIPE_PIPE])])]"

lemma small_run_316: "small_run 972 43386 ts_small_parse_table_316 974 43520"
  by (simp add: small_simps ts_small_parse_table_316_def)

definition ts_small_parse_table_317 :: "small_group list" where
  "ts_small_parse_table_317 = [
     (43520, 8, [(ACTIONS 3, 1, [anon_sym_SLASH_SLASH]), (ACTIONS 5, 1, [anon_sym_SLASH_STAR]),
       (ACTIONS 7, 1, [anon_sym_SLASH_SLASH_SLASH]), (ACTIONS 9, 1, [sym__block_comment]),
       (ACTIONS 11, 1, [sym__documentation_block_comment]), (STATE 974, 2, [sym_comment,
       sym_documentation_comment]), (ACTIONS 3030, 10, [anon_sym_QMARK, anon_sym_LT, anon_sym_GT,
       anon_sym_PIPE, anon_sym_AMP, anon_sym_GT_GT, anon_sym_SLASH, anon_sym_BANG, anon_sym_DOT,
       anon_sym_QMARK_DOT]), (ACTIONS 3028, 29, [anon_sym_RBRACE, anon_sym_LBRACK,
       anon_sym_COMMA, anon_sym_RBRACK, anon_sym_COLON, anon_sym_LPAREN, anon_sym_RPAREN,
       anon_sym_QMARK_QMARK, sym_equality_operator, anon_sym_LT_EQ, anon_sym_GT_EQ,
       anon_sym_CARET, anon_sym_LT_LT, anon_sym_GT_GT_GT, sym__additive_operator, anon_sym_STAR,
       anon_sym_PERCENT, anon_sym_TILDE_SLASH, anon_sym_is, anon_sym_as, anon_sym_DOT_DOT,
       anon_sym_QMARK_DOT_DOT, anon_sym_SEMI, anon_sym_EQ_GT, anon_sym_when, anon_sym_case,
       anon_sym_else, anon_sym_AMP_AMP, anon_sym_PIPE_PIPE])]),
     (43583, 8, [(ACTIONS 3, 1, [anon_sym_SLASH_SLASH]), (ACTIONS 5, 1, [anon_sym_SLASH_STAR]),
       (ACTIONS 7, 1, [anon_sym_SLASH_SLASH_SLASH]), (ACTIONS 9, 1, [sym__block_comment]),
       (ACTIONS 11, 1, [sym__documentation_block_comment]), (STATE 975, 2, [sym_comment,
       sym_documentation_comment]), (ACTIONS 1674, 10, [anon_sym_QMARK, anon_sym_LT, anon_sym_GT,
       anon_sym_PIPE, anon_sym_AMP, anon_sym_GT_GT, anon_sym_SLASH, anon_sym_BANG, anon_sym_DOT,
       anon_sym_QMARK_DOT]), (ACTIONS 1676, 29, [anon_sym_RBRACE, anon_sym_LBRACK,
       anon_sym_COMMA, anon_sym_RBRACK, anon_sym_COLON, anon_sym_LPAREN, anon_sym_RPAREN,
       anon_sym_QMARK_QMARK, sym_equality_operator, anon_sym_LT_EQ, anon_sym_GT_EQ,
       anon_sym_CARET, anon_sym_LT_LT, anon_sym_GT_GT_GT, sym__additive_operator, anon_sym_STAR,
       anon_sym_PERCENT, anon_sym_TILDE_SLASH, anon_sym_is, anon_sym_as, anon_sym_DOT_DOT,
       anon_sym_QMARK_DOT_DOT, anon_sym_SEMI, anon_sym_EQ_GT, anon_sym_when, anon_sym_case,
       anon_sym_else, anon_sym_AMP_AMP, anon_sym_PIPE_PIPE])])]"

lemma small_run_317: "small_run 974 43520 ts_small_parse_table_317 976 43646"
  by (simp add: small_simps ts_small_parse_table_317_def)

definition ts_small_parse_table_318 :: "small_group list" where
  "ts_small_parse_table_318 = [
     (43646, 8, [(ACTIONS 3, 1, [anon_sym_SLASH_SLASH]), (ACTIONS 5, 1, [anon_sym_SLASH_STAR]),
       (ACTIONS 7, 1, [anon_sym_SLASH_SLASH_SLASH]), (ACTIONS 9, 1, [sym__block_comment]),
       (ACTIONS 11, 1, [sym__documentation_block_comment]), (STATE 976, 2, [sym_comment,
       sym_documentation_comment]), (ACTIONS 3034, 10, [anon_sym_QMARK, anon_sym_LT, anon_sym_GT,
       anon_sym_PIPE, anon_sym_AMP, anon_sym_GT_GT, anon_sym_SLASH, anon_sym_BANG, anon_sym_DOT,
       anon_sym_QMARK_DOT]), (ACTIONS 3032, 29, [anon_sym_RBRACE, anon_sym_LBRACK,
       anon_sym_COMMA, anon_sym_RBRACK, anon_sym_COLON, anon_sym_LPAREN, anon_sym_RPAREN,
       anon_sym_QMARK_QMARK, sym_equality_operator, anon_sym_LT_EQ, anon_sym_GT_EQ,
       anon_sym_CARET, anon_sym_LT_LT, anon_sym_GT_GT_GT, sym__additive_operator, anon_sym_STAR,
       anon_sym_PERCENT, anon_sym_TILDE_SLASH, anon_sym_is, anon_sym_as, anon_sym_DOT_DOT,
       anon_sym_QMARK_DOT_DOT, anon_sym_SEMI, anon_sym_EQ_GT, anon_sym_when, anon_sym_case,
       anon_sym_else, anon_sym_AMP_AMP, anon_sym_PIPE_PIPE])]),
     (43709, 8, [(ACTIONS 3, 1, [anon_sym_SLASH_SLASH]), (ACTIONS 5, 1, [anon_sym_SLASH_STAR]),
       (ACTIONS 7, 1, [anon_sym_SLASH_SLASH_SLASH]), (ACTIONS 9, 1, [sym__block_comment]),
       (ACTIONS 11, 1, [sym__documentation_block_comment]), (STATE 977, 2, [sym_comment,
       sym_documentation_comment]), (ACTIONS 973, 10, [anon_sym_QMARK, anon_sym_LT, anon_sym_GT,
       anon_sym_PIPE, anon_sym_AMP, anon_sym_GT_GT, anon_sym_SLASH, anon_sym_BANG, anon_sym_DOT,
       anon_sym_QMARK_DOT]), (ACTIONS 975, 29, [anon_sym_RBRACE, anon_sym_LBRACK, anon_sym_COMMA,
       anon_sym_RBRACK, anon_sym_COLON, anon_sym_LPAREN, anon_sym_RPAREN, anon_sym_QMARK_QMARK,
       sym_equality_operator, anon_sym_LT_EQ, anon_sym_GT_EQ, anon_sym_CARET, anon_sym_LT_LT,
       anon_sym_GT_GT_GT, sym__additive_operator, anon_sym_STAR, anon_sym_PERCENT,
       anon_sym_TILDE_SLASH, anon_sym_is, anon_sym_as, anon_sym_DOT_DOT, anon_sym_QMARK_DOT_DOT,
       anon_sym_SEMI, anon_sym_EQ_GT, anon_sym_when, anon_sym_case, anon_sym_else,
       anon_sym_AMP_AMP, anon_sym_PIPE_PIPE])])]"

lemma small_run_318: "small_run 976 43646 ts_small_parse_table_318 978 43772"
  by (simp add: small_simps ts_small_parse_table_318_def)

definition ts_small_parse_table_319 :: "small_group list" where
  "ts_small_parse_table_319 = [
     (43772, 12, [(ACTIONS 3, 1, [anon_sym_SLASH_SLASH]), (ACTIONS 5, 1,
       [anon_sym_SLASH_STAR]), (ACTIONS 7, 1, [anon_sym_SLASH_SLASH_SLASH]), (ACTIONS 9, 1,
       [sym__block_comment]), (ACTIONS 11, 1, [sym__documentation_block_comment]), (ACTIONS 3036,
       1, [anon_sym_QMARK]), (ACTIONS 3039, 1, [anon_sym_LT]), (STATE 1013, 1,
       [sym_type_arguments]), (STATE 1055, 1, [sym_nullable_type]), (STATE 978, 2, [sym_comment,
       sym_documentation_comment]), (ACTIONS 2539, 10, [anon_sym_GT, anon_sym_PIPE, anon_sym_AMP,
       anon_sym_GT_GT, anon_sym_SLASH, anon_sym_BANG, anon_sym_as, anon_sym_DOT,
       anon_sym_QMARK_DOT, anon_sym_async]), (ACTIONS 2531, 25, [anon_sym_LBRACE,
       anon_sym_LBRACK, anon_sym_COMMA, anon_sym_LPAREN, anon_sym_QMARK_QMARK,
       sym_equality_operator, anon_sym_LT_EQ, anon_sym_GT_EQ, anon_sym_CARET, anon_sym_LT_LT,
       anon_sym_GT_GT_GT, sym__additive_operator, anon_sym_STAR, anon_sym_PERCENT,
       anon_sym_TILDE_SLASH, anon_sym_is, anon_sym_DOT_DOT, anon_sym_QMARK_DOT_DOT,
       anon_sym_SEMI, anon_sym_EQ_GT, anon_sym_async_STAR, anon_sym_sync_STAR, anon_sym_Function,
       anon_sym_AMP_AMP, anon_sym_PIPE_PIPE])]),
     (43843, 8, [(ACTIONS 3, 1, [anon_sym_SLASH_SLASH]), (ACTIONS 5, 1, [anon_sym_SLASH_STAR]),
       (ACTIONS 7, 1, [anon_sym_SLASH_SLASH_SLASH]), (ACTIONS 9, 1, [sym__block_comment]),
       (ACTIONS 11, 1, [sym__documentation_block_comment]), (STATE 979, 2, [sym_comment,
       sym_documentation_comment]), (ACTIONS 3044, 10, [anon_sym_QMARK, anon_sym_LT, anon_sym_GT,
       anon_sym_PIPE, anon_sym_AMP, anon_sym_GT_GT, anon_sym_SLASH, anon_sym_BANG, anon_sym_DOT,
       anon_sym_QMARK_DOT]), (ACTIONS 3042, 29, [anon_sym_RBRACE, anon_sym_LBRACK,
       anon_sym_COMMA, anon_sym_RBRACK, anon_sym_COLON, anon_sym_LPAREN, anon_sym_RPAREN,
       anon_sym_QMARK_QMARK, sym_equality_operator, anon_sym_LT_EQ, anon_sym_GT_EQ,
       anon_sym_CARET, anon_sym_LT_LT, anon_sym_GT_GT_GT, sym__additive_operator, anon_sym_STAR,
       anon_sym_PERCENT, anon_sym_TILDE_SLASH, anon_sym_is, anon_sym_as, anon_sym_DOT_DOT,
       anon_sym_QMARK_DOT_DOT, anon_sym_SEMI, anon_sym_EQ_GT, anon_sym_when, anon_sym_case,
       anon_sym_else, anon_sym_AMP_AMP, anon_sym_PIPE_PIPE])])]"

lemma small_run_319: "small_run 978 43772 ts_small_parse_table_319 980 43906"
  by (simp add: small_simps ts_small_parse_table_319_def)

definition ts_small_parse_table_320 :: "small_group list" where
  "ts_small_parse_table_320 = [
     (43906, 8, [(ACTIONS 3, 1, [anon_sym_SLASH_SLASH]), (ACTIONS 5, 1, [anon_sym_SLASH_STAR]),
       (ACTIONS 7, 1, [anon_sym_SLASH_SLASH_SLASH]), (ACTIONS 9, 1, [sym__block_comment]),
       (ACTIONS 11, 1, [sym__documentation_block_comment]), (STATE 980, 2, [sym_comment,
       sym_documentation_comment]), (ACTIONS 1155, 10, [anon_sym_QMARK, anon_sym_LT, anon_sym_GT,
       anon_sym_PIPE, anon_sym_AMP, anon_sym_GT_GT, anon_sym_SLASH, anon_sym_BANG, anon_sym_DOT,
       anon_sym_QMARK_DOT]), (ACTIONS 1153, 29, [anon_sym_RBRACE, anon_sym_LBRACK,
       anon_sym_COMMA, anon_sym_RBRACK, anon_sym_COLON, anon_sym_LPAREN, anon_sym_RPAREN,
       anon_sym_QMARK_QMARK, sym_equality_operator, anon_sym_LT_EQ, anon_sym_GT_EQ,
       anon_sym_CARET, anon_sym_LT_LT, anon_sym_GT_GT_GT, sym__additive_operator, anon_sym_STAR,
       anon_sym_PERCENT, anon_sym_TILDE_SLASH, anon_sym_is, anon_sym_as, anon_sym_DOT_DOT,
       anon_sym_QMARK_DOT_DOT, anon_sym_SEMI, anon_sym_EQ_GT, anon_sym_when, anon_sym_case,
       anon_sym_else, anon_sym_AMP_AMP, anon_sym_PIPE_PIPE])]),
     (43969, 8, [(ACTIONS 3, 1, [anon_sym_SLASH_SLASH]), (ACTIONS 5, 1, [anon_sym_SLASH_STAR]),
       (ACTIONS 7, 1, [anon_sym_SLASH_SLASH_SLASH]), (ACTIONS 9, 1, [sym__block_comment]),
       (ACTIONS 11, 1, [sym__documentation_block_comment]), (STATE 981, 2, [sym_comment,
       sym_documentation_comment]), (ACTIONS 3048, 10, [anon_sym_QMARK, anon_sym_LT, anon_sym_GT,
       anon_sym_PIPE, anon_sym_AMP, anon_sym_GT_GT, anon_sym_SLASH, anon_sym_BANG, anon_sym_DOT,
       anon_sym_QMARK_DOT]), (ACTIONS 3046, 29, [anon_sym_RBRACE, anon_sym_LBRACK,
       anon_sym_COMMA, anon_sym_RBRACK, anon_sym_COLON, anon_sym_LPAREN, anon_sym_RPAREN,
       anon_sym_QMARK_QMARK, sym_equality_operator, anon_sym_LT_EQ, anon_sym_GT_EQ,
       anon_sym_CARET, anon_sym_LT_LT, anon_sym_GT_GT_GT, sym__additive_operator, anon_sym_STAR,
       anon_sym_PERCENT, anon_sym_TILDE_SLASH, anon_sym_is, anon_sym_as, anon_sym_DOT_DOT,
       anon_sym_QMARK_DOT_DOT, anon_sym_SEMI, anon_sym_EQ_GT, anon_sym_when, anon_sym_case,
       anon_sym_else, anon_sym_AMP_AMP, anon_sym_PIPE_PIPE])])]"

lemma small_run_320: "small_run 980 43906 ts_small_parse_table_320 982 44032"
  by (simp add: small_simps ts_small_parse_table_320_def)

definition ts_small_parse_table_321 :: "small_group list" where
  "ts_small_parse_table_321 = [
     (44032, 8, [(ACTIONS 3, 1, [anon_sym_SLASH_SLASH]), (ACTIONS 5, 1, [anon_sym_SLASH_STAR]),
       (ACTIONS 7, 1, [anon_sym_SLASH_SLASH_SLASH]), (ACTIONS 9, 1, [sym__block_comment]),
       (ACTIONS 11, 1, [sym__documentation_block_comment]), (STATE 982, 2, [sym_comment,
       sym_documentation_comment]), (ACTIONS 3052, 10, [anon_sym_QMARK, anon_sym_LT, anon_sym_GT,
       anon_sym_PIPE, anon_sym_AMP, anon_sym_GT_GT, anon_sym_SLASH, anon_sym_BANG, anon_sym_DOT,
       anon_sym_QMARK_DOT]), (ACTIONS 3050, 29, [anon_sym_RBRACE, anon_sym_LBRACK,
       anon_sym_COMMA, anon_sym_RBRACK, anon_sym_COLON, anon_sym_LPAREN, anon_sym_RPAREN,
       anon_sym_QMARK_QMARK, sym_equality_operator, anon_sym_LT_EQ, anon_sym_GT_EQ,
       anon_sym_CARET, anon_sym_LT_LT, anon_sym_GT_GT_GT, sym__additive_operator, anon_sym_STAR,
       anon_sym_PERCENT, anon_sym_TILDE_SLASH, anon_sym_is, anon_sym_as, anon_sym_DOT_DOT,
       anon_sym_QMARK_DOT_DOT, anon_sym_SEMI, anon_sym_EQ_GT, anon_sym_when, anon_sym_case,
       anon_sym_else, anon_sym_AMP_AMP, anon_sym_PIPE_PIPE])]),
     (44095, 14, [(ACTIONS 3, 1, [anon_sym_SLASH_SLASH]), (ACTIONS 5, 1,
       [anon_sym_SLASH_STAR]), (ACTIONS 7, 1, [anon_sym_SLASH_SLASH_SLASH]), (ACTIONS 9, 1,
       [sym__block_comment]), (ACTIONS 11, 1, [sym__documentation_block_comment]), (ACTIONS 2421,
       1, [anon_sym_LPAREN]), (ACTIONS 2425, 1, [anon_sym_LT]), (STATE 874, 1,
       [aux_sym_cascade_section_repeat1]), (STATE 1088, 1, [sym_argument_part]), (STATE 1109, 1,
       [sym_arguments]), (STATE 3052, 1, [sym_type_arguments]), (STATE 983, 2, [sym_comment,
       sym_documentation_comment]), (ACTIONS 1376, 5, [anon_sym_EQ, anon_sym_QMARK, anon_sym_DOT,
       anon_sym_QMARK_DOT, anon_sym_async]), (ACTIONS 1371, 28, [anon_sym_LBRACE,
       anon_sym_RBRACE, anon_sym_LBRACK, anon_sym_COMMA, anon_sym_RBRACK, anon_sym_COLON,
       anon_sym_RPAREN, anon_sym_PLUS_EQ, anon_sym_DASH_EQ, anon_sym_STAR_EQ, anon_sym_SLASH_EQ,
       anon_sym_PERCENT_EQ, anon_sym_TILDE_SLASH_EQ, anon_sym_LT_LT_EQ, anon_sym_GT_GT_EQ,
       anon_sym_GT_GT_GT_EQ, anon_sym_AMP_EQ, anon_sym_CARET_EQ, anon_sym_PIPE_EQ,
       anon_sym_QMARK_QMARK_EQ, anon_sym_DOT_DOT, anon_sym_QMARK_DOT_DOT, anon_sym_SEMI,
       anon_sym_EQ_GT, anon_sym_case, anon_sym_else, anon_sym_async_STAR, anon_sym_sync_STAR])])]"

lemma small_run_321: "small_run 982 44032 ts_small_parse_table_321 984 44170"
  by (simp add: small_simps ts_small_parse_table_321_def)

definition ts_small_parse_table_322 :: "small_group list" where
  "ts_small_parse_table_322 = [
     (44170, 8, [(ACTIONS 3, 1, [anon_sym_SLASH_SLASH]), (ACTIONS 5, 1, [anon_sym_SLASH_STAR]),
       (ACTIONS 7, 1, [anon_sym_SLASH_SLASH_SLASH]), (ACTIONS 9, 1, [sym__block_comment]),
       (ACTIONS 11, 1, [sym__documentation_block_comment]), (STATE 984, 2, [sym_comment,
       sym_documentation_comment]), (ACTIONS 1821, 10, [anon_sym_QMARK, anon_sym_LT, anon_sym_GT,
       anon_sym_PIPE, anon_sym_AMP, anon_sym_GT_GT, anon_sym_SLASH, anon_sym_BANG, anon_sym_DOT,
       anon_sym_QMARK_DOT]), (ACTIONS 1819, 29, [anon_sym_RBRACE, anon_sym_LBRACK,
       anon_sym_COMMA, anon_sym_RBRACK, anon_sym_COLON, anon_sym_LPAREN, anon_sym_RPAREN,
       anon_sym_QMARK_QMARK, sym_equality_operator, anon_sym_LT_EQ, anon_sym_GT_EQ,
       anon_sym_CARET, anon_sym_LT_LT, anon_sym_GT_GT_GT, sym__additive_operator, anon_sym_STAR,
       anon_sym_PERCENT, anon_sym_TILDE_SLASH, anon_sym_is, anon_sym_as, anon_sym_DOT_DOT,
       anon_sym_QMARK_DOT_DOT, anon_sym_SEMI, anon_sym_EQ_GT, anon_sym_when, anon_sym_case,
       anon_sym_else, anon_sym_AMP_AMP, anon_sym_PIPE_PIPE])]),
     (44233, 8, [(ACTIONS 3, 1, [anon_sym_SLASH_SLASH]), (ACTIONS 5, 1, [anon_sym_SLASH_STAR]),
       (ACTIONS 7, 1, [anon_sym_SLASH_SLASH_SLASH]), (ACTIONS 9, 1, [sym__block_comment]),
       (ACTIONS 11, 1, [sym__documentation_block_comment]), (STATE 985, 2, [sym_comment,
       sym_documentation_comment]), (ACTIONS 3056, 10, [anon_sym_QMARK, anon_sym_LT, anon_sym_GT,
       anon_sym_PIPE, anon_sym_AMP, anon_sym_GT_GT, anon_sym_SLASH, anon_sym_BANG, anon_sym_DOT,
       anon_sym_QMARK_DOT]), (ACTIONS 3054, 29, [anon_sym_RBRACE, anon_sym_LBRACK,
       anon_sym_COMMA, anon_sym_RBRACK, anon_sym_COLON, anon_sym_LPAREN, anon_sym_RPAREN,
       anon_sym_QMARK_QMARK, sym_equality_operator, anon_sym_LT_EQ, anon_sym_GT_EQ,
       anon_sym_CARET, anon_sym_LT_LT, anon_sym_GT_GT_GT, sym__additive_operator, anon_sym_STAR,
       anon_sym_PERCENT, anon_sym_TILDE_SLASH, anon_sym_is, anon_sym_as, anon_sym_DOT_DOT,
       anon_sym_QMARK_DOT_DOT, anon_sym_SEMI, anon_sym_EQ_GT, anon_sym_when, anon_sym_case,
       anon_sym_else, anon_sym_AMP_AMP, anon_sym_PIPE_PIPE])])]"

lemma small_run_322: "small_run 984 44170 ts_small_parse_table_322 986 44296"
  by (simp add: small_simps ts_small_parse_table_322_def)

definition ts_small_parse_table_323 :: "small_group list" where
  "ts_small_parse_table_323 = [
     (44296, 8, [(ACTIONS 3, 1, [anon_sym_SLASH_SLASH]), (ACTIONS 5, 1, [anon_sym_SLASH_STAR]),
       (ACTIONS 7, 1, [anon_sym_SLASH_SLASH_SLASH]), (ACTIONS 9, 1, [sym__block_comment]),
       (ACTIONS 11, 1, [sym__documentation_block_comment]), (STATE 986, 2, [sym_comment,
       sym_documentation_comment]), (ACTIONS 3060, 10, [anon_sym_QMARK, anon_sym_LT, anon_sym_GT,
       anon_sym_PIPE, anon_sym_AMP, anon_sym_GT_GT, anon_sym_SLASH, anon_sym_BANG, anon_sym_DOT,
       anon_sym_QMARK_DOT]), (ACTIONS 3058, 29, [anon_sym_RBRACE, anon_sym_LBRACK,
       anon_sym_COMMA, anon_sym_RBRACK, anon_sym_COLON, anon_sym_LPAREN, anon_sym_RPAREN,
       anon_sym_QMARK_QMARK, sym_equality_operator, anon_sym_LT_EQ, anon_sym_GT_EQ,
       anon_sym_CARET, anon_sym_LT_LT, anon_sym_GT_GT_GT, sym__additive_operator, anon_sym_STAR,
       anon_sym_PERCENT, anon_sym_TILDE_SLASH, anon_sym_is, anon_sym_as, anon_sym_DOT_DOT,
       anon_sym_QMARK_DOT_DOT, anon_sym_SEMI, anon_sym_EQ_GT, anon_sym_when, anon_sym_case,
       anon_sym_else, anon_sym_AMP_AMP, anon_sym_PIPE_PIPE])]),
     (44359, 11, [(ACTIONS 3, 1, [anon_sym_SLASH_SLASH]), (ACTIONS 5, 1,
       [anon_sym_SLASH_STAR]), (ACTIONS 7, 1, [anon_sym_SLASH_SLASH_SLASH]), (ACTIONS 9, 1,
       [sym__block_comment]), (ACTIONS 11, 1, [sym__documentation_block_comment]), (STATE 319, 1,
       [sym_shift_operator]), (STATE 961, 1, [aux_sym_shift_expression_repeat1]), (STATE 1397, 1,
       [sym__shift_operator]), (STATE 987, 2, [sym_comment, sym_documentation_comment]), (ACTIONS
       2495, 12, [anon_sym_QMARK, anon_sym_LT, anon_sym_GT, anon_sym_PIPE, anon_sym_AMP,
       anon_sym_GT_GT, anon_sym_SLASH, anon_sym_BANG, anon_sym_as, anon_sym_DOT,
       anon_sym_QMARK_DOT, anon_sym_async]), (ACTIONS 2493, 24, [anon_sym_LBRACE,
       anon_sym_LBRACK, anon_sym_COMMA, anon_sym_LPAREN, anon_sym_QMARK_QMARK,
       sym_equality_operator, anon_sym_LT_EQ, anon_sym_GT_EQ, anon_sym_CARET, anon_sym_LT_LT,
       anon_sym_GT_GT_GT, sym__additive_operator, anon_sym_STAR, anon_sym_PERCENT,
       anon_sym_TILDE_SLASH, anon_sym_is, anon_sym_DOT_DOT, anon_sym_QMARK_DOT_DOT,
       anon_sym_SEMI, anon_sym_EQ_GT, anon_sym_async_STAR, anon_sym_sync_STAR, anon_sym_AMP_AMP,
       anon_sym_PIPE_PIPE])])]"

lemma small_run_323: "small_run 986 44296 ts_small_parse_table_323 988 44428"
  by (simp add: small_simps ts_small_parse_table_323_def)

definition ts_small_parse_table_324 :: "small_group list" where
  "ts_small_parse_table_324 = [
     (44428, 8, [(ACTIONS 3, 1, [anon_sym_SLASH_SLASH]), (ACTIONS 5, 1, [anon_sym_SLASH_STAR]),
       (ACTIONS 7, 1, [anon_sym_SLASH_SLASH_SLASH]), (ACTIONS 9, 1, [sym__block_comment]),
       (ACTIONS 11, 1, [sym__documentation_block_comment]), (STATE 988, 2, [sym_comment,
       sym_documentation_comment]), (ACTIONS 3064, 10, [anon_sym_QMARK, anon_sym_LT, anon_sym_GT,
       anon_sym_PIPE, anon_sym_AMP, anon_sym_GT_GT, anon_sym_SLASH, anon_sym_BANG, anon_sym_DOT,
       anon_sym_QMARK_DOT]), (ACTIONS 3062, 29, [anon_sym_RBRACE, anon_sym_LBRACK,
       anon_sym_COMMA, anon_sym_RBRACK, anon_sym_COLON, anon_sym_LPAREN, anon_sym_RPAREN,
       anon_sym_QMARK_QMARK, sym_equality_operator, anon_sym_LT_EQ, anon_sym_GT_EQ,
       anon_sym_CARET, anon_sym_LT_LT, anon_sym_GT_GT_GT, sym__additive_operator, anon_sym_STAR,
       anon_sym_PERCENT, anon_sym_TILDE_SLASH, anon_sym_is, anon_sym_as, anon_sym_DOT_DOT,
       anon_sym_QMARK_DOT_DOT, anon_sym_SEMI, anon_sym_EQ_GT, anon_sym_when, anon_sym_case,
       anon_sym_else, anon_sym_AMP_AMP, anon_sym_PIPE_PIPE])]),
     (44491, 8, [(ACTIONS 3, 1, [anon_sym_SLASH_SLASH]), (ACTIONS 5, 1, [anon_sym_SLASH_STAR]),
       (ACTIONS 7, 1, [anon_sym_SLASH_SLASH_SLASH]), (ACTIONS 9, 1, [sym__block_comment]),
       (ACTIONS 11, 1, [sym__documentation_block_comment]), (STATE 989, 2, [sym_comment,
       sym_documentation_comment]), (ACTIONS 3068, 10, [anon_sym_QMARK, anon_sym_LT, anon_sym_GT,
       anon_sym_PIPE, anon_sym_AMP, anon_sym_GT_GT, anon_sym_SLASH, anon_sym_BANG, anon_sym_DOT,
       anon_sym_QMARK_DOT]), (ACTIONS 3066, 29, [anon_sym_RBRACE, anon_sym_LBRACK,
       anon_sym_COMMA, anon_sym_RBRACK, anon_sym_COLON, anon_sym_LPAREN, anon_sym_RPAREN,
       anon_sym_QMARK_QMARK, sym_equality_operator, anon_sym_LT_EQ, anon_sym_GT_EQ,
       anon_sym_CARET, anon_sym_LT_LT, anon_sym_GT_GT_GT, sym__additive_operator, anon_sym_STAR,
       anon_sym_PERCENT, anon_sym_TILDE_SLASH, anon_sym_is, anon_sym_as, anon_sym_DOT_DOT,
       anon_sym_QMARK_DOT_DOT, anon_sym_SEMI, anon_sym_EQ_GT, anon_sym_when, anon_sym_case,
       anon_sym_else, anon_sym_AMP_AMP, anon_sym_PIPE_PIPE])])]"

lemma small_run_324: "small_run 988 44428 ts_small_parse_table_324 990 44554"
  by (simp add: small_simps ts_small_parse_table_324_def)

definition ts_small_parse_table_325 :: "small_group list" where
  "ts_small_parse_table_325 = [
     (44554, 8, [(ACTIONS 3, 1, [anon_sym_SLASH_SLASH]), (ACTIONS 5, 1, [anon_sym_SLASH_STAR]),
       (ACTIONS 7, 1, [anon_sym_SLASH_SLASH_SLASH]), (ACTIONS 9, 1, [sym__block_comment]),
       (ACTIONS 11, 1, [sym__documentation_block_comment]), (STATE 990, 2, [sym_comment,
       sym_documentation_comment]), (ACTIONS 3072, 10, [anon_sym_QMARK, anon_sym_LT, anon_sym_GT,
       anon_sym_PIPE, anon_sym_AMP, anon_sym_GT_GT, anon_sym_SLASH, anon_sym_BANG, anon_sym_DOT,
       anon_sym_QMARK_DOT]), (ACTIONS 3070, 29, [anon_sym_RBRACE, anon_sym_LBRACK,
       anon_sym_COMMA, anon_sym_RBRACK, anon_sym_COLON, anon_sym_LPAREN, anon_sym_RPAREN,
       anon_sym_QMARK_QMARK, sym_equality_operator, anon_sym_LT_EQ, anon_sym_GT_EQ,
       anon_sym_CARET, anon_sym_LT_LT, anon_sym_GT_GT_GT, sym__additive_operator, anon_sym_STAR,
       anon_sym_PERCENT, anon_sym_TILDE_SLASH, anon_sym_is, anon_sym_as, anon_sym_DOT_DOT,
       anon_sym_QMARK_DOT_DOT, anon_sym_SEMI, anon_sym_EQ_GT, anon_sym_when, anon_sym_case,
       anon_sym_else, anon_sym_AMP_AMP, anon_sym_PIPE_PIPE])]),
     (44617, 8, [(ACTIONS 3, 1, [anon_sym_SLASH_SLASH]), (ACTIONS 5, 1, [anon_sym_SLASH_STAR]),
       (ACTIONS 7, 1, [anon_sym_SLASH_SLASH_SLASH]), (ACTIONS 9, 1, [sym__block_comment]),
       (ACTIONS 11, 1, [sym__documentation_block_comment]), (STATE 991, 2, [sym_comment,
       sym_documentation_comment]), (ACTIONS 3076, 10, [anon_sym_QMARK, anon_sym_LT, anon_sym_GT,
       anon_sym_PIPE, anon_sym_AMP, anon_sym_GT_GT, anon_sym_SLASH, anon_sym_BANG, anon_sym_DOT,
       anon_sym_QMARK_DOT]), (ACTIONS 3074, 29, [anon_sym_RBRACE, anon_sym_LBRACK,
       anon_sym_COMMA, anon_sym_RBRACK, anon_sym_COLON, anon_sym_LPAREN, anon_sym_RPAREN,
       anon_sym_QMARK_QMARK, sym_equality_operator, anon_sym_LT_EQ, anon_sym_GT_EQ,
       anon_sym_CARET, anon_sym_LT_LT, anon_sym_GT_GT_GT, sym__additive_operator, anon_sym_STAR,
       anon_sym_PERCENT, anon_sym_TILDE_SLASH, anon_sym_is, anon_sym_as, anon_sym_DOT_DOT,
       anon_sym_QMARK_DOT_DOT, anon_sym_SEMI, anon_sym_EQ_GT, anon_sym_when, anon_sym_case,
       anon_sym_else, anon_sym_AMP_AMP, anon_sym_PIPE_PIPE])])]"

lemma small_run_325: "small_run 990 44554 ts_small_parse_table_325 992 44680"
  by (simp add: small_simps ts_small_parse_table_325_def)

definition ts_small_parse_table_326 :: "small_group list" where
  "ts_small_parse_table_326 = [
     (44680, 8, [(ACTIONS 3, 1, [anon_sym_SLASH_SLASH]), (ACTIONS 5, 1, [anon_sym_SLASH_STAR]),
       (ACTIONS 7, 1, [anon_sym_SLASH_SLASH_SLASH]), (ACTIONS 9, 1, [sym__block_comment]),
       (ACTIONS 11, 1, [sym__documentation_block_comment]), (STATE 992, 2, [sym_comment,
       sym_documentation_comment]), (ACTIONS 1729, 10, [anon_sym_QMARK, anon_sym_LT, anon_sym_GT,
       anon_sym_PIPE, anon_sym_AMP, anon_sym_GT_GT, anon_sym_SLASH, anon_sym_BANG, anon_sym_DOT,
       anon_sym_QMARK_DOT]), (ACTIONS 1727, 29, [anon_sym_RBRACE, anon_sym_LBRACK,
       anon_sym_COMMA, anon_sym_RBRACK, anon_sym_COLON, anon_sym_LPAREN, anon_sym_RPAREN,
       anon_sym_QMARK_QMARK, sym_equality_operator, anon_sym_LT_EQ, anon_sym_GT_EQ,
       anon_sym_CARET, anon_sym_LT_LT, anon_sym_GT_GT_GT, sym__additive_operator, anon_sym_STAR,
       anon_sym_PERCENT, anon_sym_TILDE_SLASH, anon_sym_is, anon_sym_as, anon_sym_DOT_DOT,
       anon_sym_QMARK_DOT_DOT, anon_sym_SEMI, anon_sym_EQ_GT, anon_sym_when, anon_sym_case,
       anon_sym_else, anon_sym_AMP_AMP, anon_sym_PIPE_PIPE])]),
     (44743, 8, [(ACTIONS 3, 1, [anon_sym_SLASH_SLASH]), (ACTIONS 5, 1, [anon_sym_SLASH_STAR]),
       (ACTIONS 7, 1, [anon_sym_SLASH_SLASH_SLASH]), (ACTIONS 9, 1, [sym__block_comment]),
       (ACTIONS 11, 1, [sym__documentation_block_comment]), (STATE 993, 2, [sym_comment,
       sym_documentation_comment]), (ACTIONS 2031, 10, [anon_sym_QMARK, anon_sym_LT, anon_sym_GT,
       anon_sym_PIPE, anon_sym_AMP, anon_sym_GT_GT, anon_sym_SLASH, anon_sym_BANG, anon_sym_DOT,
       anon_sym_QMARK_DOT]), (ACTIONS 2017, 29, [anon_sym_RBRACE, anon_sym_LBRACK,
       anon_sym_COMMA, anon_sym_RBRACK, anon_sym_COLON, anon_sym_LPAREN, anon_sym_RPAREN,
       anon_sym_QMARK_QMARK, sym_equality_operator, anon_sym_LT_EQ, anon_sym_GT_EQ,
       anon_sym_CARET, anon_sym_LT_LT, anon_sym_GT_GT_GT, sym__additive_operator, anon_sym_STAR,
       anon_sym_PERCENT, anon_sym_TILDE_SLASH, anon_sym_is, anon_sym_as, anon_sym_DOT_DOT,
       anon_sym_QMARK_DOT_DOT, anon_sym_SEMI, anon_sym_EQ_GT, anon_sym_when, anon_sym_case,
       anon_sym_else, anon_sym_AMP_AMP, anon_sym_PIPE_PIPE])])]"

lemma small_run_326: "small_run 992 44680 ts_small_parse_table_326 994 44806"
  by (simp add: small_simps ts_small_parse_table_326_def)

definition ts_small_parse_table_327 :: "small_group list" where
  "ts_small_parse_table_327 = [
     (44806, 8, [(ACTIONS 3, 1, [anon_sym_SLASH_SLASH]), (ACTIONS 5, 1, [anon_sym_SLASH_STAR]),
       (ACTIONS 7, 1, [anon_sym_SLASH_SLASH_SLASH]), (ACTIONS 9, 1, [sym__block_comment]),
       (ACTIONS 11, 1, [sym__documentation_block_comment]), (STATE 994, 2, [sym_comment,
       sym_documentation_comment]), (ACTIONS 3080, 10, [anon_sym_QMARK, anon_sym_LT, anon_sym_GT,
       anon_sym_PIPE, anon_sym_AMP, anon_sym_GT_GT, anon_sym_SLASH, anon_sym_BANG, anon_sym_DOT,
       anon_sym_QMARK_DOT]), (ACTIONS 3078, 29, [anon_sym_RBRACE, anon_sym_LBRACK,
       anon_sym_COMMA, anon_sym_RBRACK, anon_sym_COLON, anon_sym_LPAREN, anon_sym_RPAREN,
       anon_sym_QMARK_QMARK, sym_equality_operator, anon_sym_LT_EQ, anon_sym_GT_EQ,
       anon_sym_CARET, anon_sym_LT_LT, anon_sym_GT_GT_GT, sym__additive_operator, anon_sym_STAR,
       anon_sym_PERCENT, anon_sym_TILDE_SLASH, anon_sym_is, anon_sym_as, anon_sym_DOT_DOT,
       anon_sym_QMARK_DOT_DOT, anon_sym_SEMI, anon_sym_EQ_GT, anon_sym_when, anon_sym_case,
       anon_sym_else, anon_sym_AMP_AMP, anon_sym_PIPE_PIPE])]),
     (44869, 8, [(ACTIONS 3, 1, [anon_sym_SLASH_SLASH]), (ACTIONS 5, 1, [anon_sym_SLASH_STAR]),
       (ACTIONS 7, 1, [anon_sym_SLASH_SLASH_SLASH]), (ACTIONS 9, 1, [sym__block_comment]),
       (ACTIONS 11, 1, [sym__documentation_block_comment]), (STATE 995, 2, [sym_comment,
       sym_documentation_comment]), (ACTIONS 1686, 10, [anon_sym_QMARK, anon_sym_LT, anon_sym_GT,
       anon_sym_PIPE, anon_sym_AMP, anon_sym_GT_GT, anon_sym_SLASH, anon_sym_BANG, anon_sym_DOT,
       anon_sym_QMARK_DOT]), (ACTIONS 1680, 29, [anon_sym_RBRACE, anon_sym_LBRACK,
       anon_sym_COMMA, anon_sym_RBRACK, anon_sym_COLON, anon_sym_LPAREN, anon_sym_RPAREN,
       anon_sym_QMARK_QMARK, sym_equality_operator, anon_sym_LT_EQ, anon_sym_GT_EQ,
       anon_sym_CARET, anon_sym_LT_LT, anon_sym_GT_GT_GT, sym__additive_operator, anon_sym_STAR,
       anon_sym_PERCENT, anon_sym_TILDE_SLASH, anon_sym_is, anon_sym_as, anon_sym_DOT_DOT,
       anon_sym_QMARK_DOT_DOT, anon_sym_SEMI, anon_sym_EQ_GT, anon_sym_when, anon_sym_case,
       anon_sym_else, anon_sym_AMP_AMP, anon_sym_PIPE_PIPE])])]"

lemma small_run_327: "small_run 994 44806 ts_small_parse_table_327 996 44932"
  by (simp add: small_simps ts_small_parse_table_327_def)

definition ts_small_parse_table_328 :: "small_group list" where
  "ts_small_parse_table_328 = [
     (44932, 8, [(ACTIONS 3, 1, [anon_sym_SLASH_SLASH]), (ACTIONS 5, 1, [anon_sym_SLASH_STAR]),
       (ACTIONS 7, 1, [anon_sym_SLASH_SLASH_SLASH]), (ACTIONS 9, 1, [sym__block_comment]),
       (ACTIONS 11, 1, [sym__documentation_block_comment]), (STATE 996, 2, [sym_comment,
       sym_documentation_comment]), (ACTIONS 2473, 10, [anon_sym_QMARK, anon_sym_LT, anon_sym_GT,
       anon_sym_PIPE, anon_sym_AMP, anon_sym_GT_GT, anon_sym_SLASH, anon_sym_BANG, anon_sym_DOT,
       anon_sym_QMARK_DOT]), (ACTIONS 2471, 29, [anon_sym_RBRACE, anon_sym_LBRACK,
       anon_sym_COMMA, anon_sym_RBRACK, anon_sym_COLON, anon_sym_LPAREN, anon_sym_RPAREN,
       anon_sym_QMARK_QMARK, sym_equality_operator, anon_sym_LT_EQ, anon_sym_GT_EQ,
       anon_sym_CARET, anon_sym_LT_LT, anon_sym_GT_GT_GT, sym__additive_operator, anon_sym_STAR,
       anon_sym_PERCENT, anon_sym_TILDE_SLASH, anon_sym_is, anon_sym_as, anon_sym_DOT_DOT,
       anon_sym_QMARK_DOT_DOT, anon_sym_SEMI, anon_sym_EQ_GT, anon_sym_when, anon_sym_case,
       anon_sym_else, anon_sym_AMP_AMP, anon_sym_PIPE_PIPE])]),
     (44995, 14, [(ACTIONS 3, 1, [anon_sym_SLASH_SLASH]), (ACTIONS 5, 1,
       [anon_sym_SLASH_STAR]), (ACTIONS 7, 1, [anon_sym_SLASH_SLASH_SLASH]), (ACTIONS 9, 1,
       [sym__block_comment]), (ACTIONS 11, 1, [sym__documentation_block_comment]), (ACTIONS 2421,
       1, [anon_sym_LPAREN]), (ACTIONS 2425, 1, [anon_sym_LT]), (STATE 983, 1,
       [aux_sym_cascade_section_repeat1]), (STATE 1088, 1, [sym_argument_part]), (STATE 1109, 1,
       [sym_arguments]), (STATE 3052, 1, [sym_type_arguments]), (STATE 997, 2, [sym_comment,
       sym_documentation_comment]), (ACTIONS 1390, 5, [anon_sym_EQ, anon_sym_QMARK, anon_sym_DOT,
       anon_sym_QMARK_DOT, anon_sym_async]), (ACTIONS 1385, 28, [anon_sym_LBRACE,
       anon_sym_RBRACE, anon_sym_LBRACK, anon_sym_COMMA, anon_sym_RBRACK, anon_sym_COLON,
       anon_sym_RPAREN, anon_sym_PLUS_EQ, anon_sym_DASH_EQ, anon_sym_STAR_EQ, anon_sym_SLASH_EQ,
       anon_sym_PERCENT_EQ, anon_sym_TILDE_SLASH_EQ, anon_sym_LT_LT_EQ, anon_sym_GT_GT_EQ,
       anon_sym_GT_GT_GT_EQ, anon_sym_AMP_EQ, anon_sym_CARET_EQ, anon_sym_PIPE_EQ,
       anon_sym_QMARK_QMARK_EQ, anon_sym_DOT_DOT, anon_sym_QMARK_DOT_DOT, anon_sym_SEMI,
       anon_sym_EQ_GT, anon_sym_case, anon_sym_else, anon_sym_async_STAR, anon_sym_sync_STAR])])]"

lemma small_run_328: "small_run 996 44932 ts_small_parse_table_328 998 45070"
  by (simp add: small_simps ts_small_parse_table_328_def)

definition ts_small_parse_table_329 :: "small_group list" where
  "ts_small_parse_table_329 = [
     (45070, 8, [(ACTIONS 3, 1, [anon_sym_SLASH_SLASH]), (ACTIONS 5, 1, [anon_sym_SLASH_STAR]),
       (ACTIONS 7, 1, [anon_sym_SLASH_SLASH_SLASH]), (ACTIONS 9, 1, [sym__block_comment]),
       (ACTIONS 11, 1, [sym__documentation_block_comment]), (STATE 998, 2, [sym_comment,
       sym_documentation_comment]), (ACTIONS 1697, 10, [anon_sym_QMARK, anon_sym_LT, anon_sym_GT,
       anon_sym_PIPE, anon_sym_AMP, anon_sym_GT_GT, anon_sym_SLASH, anon_sym_BANG, anon_sym_DOT,
       anon_sym_QMARK_DOT]), (ACTIONS 1695, 29, [anon_sym_RBRACE, anon_sym_LBRACK,
       anon_sym_COMMA, anon_sym_RBRACK, anon_sym_COLON, anon_sym_LPAREN, anon_sym_RPAREN,
       anon_sym_QMARK_QMARK, sym_equality_operator, anon_sym_LT_EQ, anon_sym_GT_EQ,
       anon_sym_CARET, anon_sym_LT_LT, anon_sym_GT_GT_GT, sym__additive_operator, anon_sym_STAR,
       anon_sym_PERCENT, anon_sym_TILDE_SLASH, anon_sym_is, anon_sym_as, anon_sym_DOT_DOT,
       anon_sym_QMARK_DOT_DOT, anon_sym_SEMI, anon_sym_EQ_GT, anon_sym_when, anon_sym_case,
       anon_sym_else, anon_sym_AMP_AMP, anon_sym_PIPE_PIPE])]),
     (45133, 8, [(ACTIONS 3, 1, [anon_sym_SLASH_SLASH]), (ACTIONS 5, 1, [anon_sym_SLASH_STAR]),
       (ACTIONS 7, 1, [anon_sym_SLASH_SLASH_SLASH]), (ACTIONS 9, 1, [sym__block_comment]),
       (ACTIONS 11, 1, [sym__documentation_block_comment]), (STATE 999, 2, [sym_comment,
       sym_documentation_comment]), (ACTIONS 1071, 10, [anon_sym_QMARK, anon_sym_LT, anon_sym_GT,
       anon_sym_PIPE, anon_sym_AMP, anon_sym_GT_GT, anon_sym_SLASH, anon_sym_BANG, anon_sym_DOT,
       anon_sym_QMARK_DOT]), (ACTIONS 1065, 29, [anon_sym_RBRACE, anon_sym_LBRACK,
       anon_sym_COMMA, anon_sym_RBRACK, anon_sym_COLON, anon_sym_LPAREN, anon_sym_RPAREN,
       anon_sym_QMARK_QMARK, sym_equality_operator, anon_sym_LT_EQ, anon_sym_GT_EQ,
       anon_sym_CARET, anon_sym_LT_LT, anon_sym_GT_GT_GT, sym__additive_operator, anon_sym_STAR,
       anon_sym_PERCENT, anon_sym_TILDE_SLASH, anon_sym_is, anon_sym_as, anon_sym_DOT_DOT,
       anon_sym_QMARK_DOT_DOT, anon_sym_SEMI, anon_sym_EQ_GT, anon_sym_when, anon_sym_case,
       anon_sym_else, anon_sym_AMP_AMP, anon_sym_PIPE_PIPE])])]"

lemma small_run_329: "small_run 998 45070 ts_small_parse_table_329 1000 45196"
  by (simp add: small_simps ts_small_parse_table_329_def)

definition ts_small_parse_table_330 :: "small_group list" where
  "ts_small_parse_table_330 = [
     (45196, 8, [(ACTIONS 3, 1, [anon_sym_SLASH_SLASH]), (ACTIONS 5, 1, [anon_sym_SLASH_STAR]),
       (ACTIONS 7, 1, [anon_sym_SLASH_SLASH_SLASH]), (ACTIONS 9, 1, [sym__block_comment]),
       (ACTIONS 11, 1, [sym__documentation_block_comment]), (STATE 1000, 2, [sym_comment,
       sym_documentation_comment]), (ACTIONS 3084, 10, [anon_sym_QMARK, anon_sym_LT, anon_sym_GT,
       anon_sym_PIPE, anon_sym_AMP, anon_sym_GT_GT, anon_sym_SLASH, anon_sym_BANG, anon_sym_DOT,
       anon_sym_QMARK_DOT]), (ACTIONS 3082, 29, [anon_sym_RBRACE, anon_sym_LBRACK,
       anon_sym_COMMA, anon_sym_RBRACK, anon_sym_COLON, anon_sym_LPAREN, anon_sym_RPAREN,
       anon_sym_QMARK_QMARK, sym_equality_operator, anon_sym_LT_EQ, anon_sym_GT_EQ,
       anon_sym_CARET, anon_sym_LT_LT, anon_sym_GT_GT_GT, sym__additive_operator, anon_sym_STAR,
       anon_sym_PERCENT, anon_sym_TILDE_SLASH, anon_sym_is, anon_sym_as, anon_sym_DOT_DOT,
       anon_sym_QMARK_DOT_DOT, anon_sym_SEMI, anon_sym_EQ_GT, anon_sym_when, anon_sym_case,
       anon_sym_else, anon_sym_AMP_AMP, anon_sym_PIPE_PIPE])]),
     (45259, 8, [(ACTIONS 3, 1, [anon_sym_SLASH_SLASH]), (ACTIONS 5, 1, [anon_sym_SLASH_STAR]),
       (ACTIONS 7, 1, [anon_sym_SLASH_SLASH_SLASH]), (ACTIONS 9, 1, [sym__block_comment]),
       (ACTIONS 11, 1, [sym__documentation_block_comment]), (STATE 1001, 2, [sym_comment,
       sym_documentation_comment]), (ACTIONS 3088, 10, [anon_sym_QMARK, anon_sym_LT, anon_sym_GT,
       anon_sym_PIPE, anon_sym_AMP, anon_sym_GT_GT, anon_sym_SLASH, anon_sym_BANG, anon_sym_DOT,
       anon_sym_QMARK_DOT]), (ACTIONS 3086, 29, [anon_sym_RBRACE, anon_sym_LBRACK,
       anon_sym_COMMA, anon_sym_RBRACK, anon_sym_COLON, anon_sym_LPAREN, anon_sym_RPAREN,
       anon_sym_QMARK_QMARK, sym_equality_operator, anon_sym_LT_EQ, anon_sym_GT_EQ,
       anon_sym_CARET, anon_sym_LT_LT, anon_sym_GT_GT_GT, sym__additive_operator, anon_sym_STAR,
       anon_sym_PERCENT, anon_sym_TILDE_SLASH, anon_sym_is, anon_sym_as, anon_sym_DOT_DOT,
       anon_sym_QMARK_DOT_DOT, anon_sym_SEMI, anon_sym_EQ_GT, anon_sym_when, anon_sym_case,
       anon_sym_else, anon_sym_AMP_AMP, anon_sym_PIPE_PIPE])])]"

lemma small_run_330: "small_run 1000 45196 ts_small_parse_table_330 1002 45322"
  by (simp add: small_simps ts_small_parse_table_330_def)

definition ts_small_parse_table_331 :: "small_group list" where
  "ts_small_parse_table_331 = [
     (45322, 8, [(ACTIONS 3, 1, [anon_sym_SLASH_SLASH]), (ACTIONS 5, 1, [anon_sym_SLASH_STAR]),
       (ACTIONS 7, 1, [anon_sym_SLASH_SLASH_SLASH]), (ACTIONS 9, 1, [sym__block_comment]),
       (ACTIONS 11, 1, [sym__documentation_block_comment]), (STATE 1002, 2, [sym_comment,
       sym_documentation_comment]), (ACTIONS 3092, 10, [anon_sym_QMARK, anon_sym_LT, anon_sym_GT,
       anon_sym_PIPE, anon_sym_AMP, anon_sym_GT_GT, anon_sym_SLASH, anon_sym_BANG, anon_sym_DOT,
       anon_sym_QMARK_DOT]), (ACTIONS 3090, 29, [anon_sym_RBRACE, anon_sym_LBRACK,
       anon_sym_COMMA, anon_sym_RBRACK, anon_sym_COLON, anon_sym_LPAREN, anon_sym_RPAREN,
       anon_sym_QMARK_QMARK, sym_equality_operator, anon_sym_LT_EQ, anon_sym_GT_EQ,
       anon_sym_CARET, anon_sym_LT_LT, anon_sym_GT_GT_GT, sym__additive_operator, anon_sym_STAR,
       anon_sym_PERCENT, anon_sym_TILDE_SLASH, anon_sym_is, anon_sym_as, anon_sym_DOT_DOT,
       anon_sym_QMARK_DOT_DOT, anon_sym_SEMI, anon_sym_EQ_GT, anon_sym_when, anon_sym_case,
       anon_sym_else, anon_sym_AMP_AMP, anon_sym_PIPE_PIPE])]),
     (45385, 8, [(ACTIONS 3, 1, [anon_sym_SLASH_SLASH]), (ACTIONS 5, 1, [anon_sym_SLASH_STAR]),
       (ACTIONS 7, 1, [anon_sym_SLASH_SLASH_SLASH]), (ACTIONS 9, 1, [sym__block_comment]),
       (ACTIONS 11, 1, [sym__documentation_block_comment]), (STATE 1003, 2, [sym_comment,
       sym_documentation_comment]), (ACTIONS 3096, 10, [anon_sym_QMARK, anon_sym_LT, anon_sym_GT,
       anon_sym_PIPE, anon_sym_AMP, anon_sym_GT_GT, anon_sym_SLASH, anon_sym_BANG, anon_sym_DOT,
       anon_sym_QMARK_DOT]), (ACTIONS 3094, 29, [anon_sym_RBRACE, anon_sym_LBRACK,
       anon_sym_COMMA, anon_sym_RBRACK, anon_sym_COLON, anon_sym_LPAREN, anon_sym_RPAREN,
       anon_sym_QMARK_QMARK, sym_equality_operator, anon_sym_LT_EQ, anon_sym_GT_EQ,
       anon_sym_CARET, anon_sym_LT_LT, anon_sym_GT_GT_GT, sym__additive_operator, anon_sym_STAR,
       anon_sym_PERCENT, anon_sym_TILDE_SLASH, anon_sym_is, anon_sym_as, anon_sym_DOT_DOT,
       anon_sym_QMARK_DOT_DOT, anon_sym_SEMI, anon_sym_EQ_GT, anon_sym_when, anon_sym_case,
       anon_sym_else, anon_sym_AMP_AMP, anon_sym_PIPE_PIPE])])]"

lemma small_run_331: "small_run 1002 45322 ts_small_parse_table_331 1004 45448"
  by (simp add: small_simps ts_small_parse_table_331_def)

definition ts_small_parse_table_332 :: "small_group list" where
  "ts_small_parse_table_332 = [
     (45448, 12, [(ACTIONS 3, 1, [anon_sym_SLASH_SLASH]), (ACTIONS 5, 1,
       [anon_sym_SLASH_STAR]), (ACTIONS 7, 1, [anon_sym_SLASH_SLASH_SLASH]), (ACTIONS 9, 1,
       [sym__block_comment]), (ACTIONS 11, 1, [sym__documentation_block_comment]), (ACTIONS 1330,
       1, [sym_increment_operator]), (ACTIONS 1334, 1, [anon_sym_LT]), (ACTIONS 1341, 1,
       [anon_sym_DOT]), (STATE 1612, 1, [sym__type_dot_identifier]), (STATE 1004, 2,
       [sym_comment, sym_documentation_comment]), (ACTIONS 1332, 11, [anon_sym_QMARK,
       anon_sym_GT, anon_sym_PIPE, anon_sym_AMP, anon_sym_GT_GT, sym__additive_operator,
       anon_sym_SLASH, anon_sym_BANG, anon_sym_as, anon_sym_QMARK_DOT, anon_sym_async]), (ACTIONS
       1322, 23, [anon_sym_LBRACE, anon_sym_LBRACK, anon_sym_COMMA, anon_sym_LPAREN,
       anon_sym_QMARK_QMARK, sym_equality_operator, anon_sym_LT_EQ, anon_sym_GT_EQ,
       anon_sym_CARET, anon_sym_LT_LT, anon_sym_GT_GT_GT, anon_sym_STAR, anon_sym_PERCENT,
       anon_sym_TILDE_SLASH, anon_sym_is, anon_sym_DOT_DOT, anon_sym_QMARK_DOT_DOT,
       anon_sym_SEMI, anon_sym_EQ_GT, anon_sym_async_STAR, anon_sym_sync_STAR, anon_sym_AMP_AMP,
       anon_sym_PIPE_PIPE])]),
     (45518, 10, [(ACTIONS 3, 1, [anon_sym_SLASH_SLASH]), (ACTIONS 5, 1,
       [anon_sym_SLASH_STAR]), (ACTIONS 7, 1, [anon_sym_SLASH_SLASH_SLASH]), (ACTIONS 9, 1,
       [sym__block_comment]), (ACTIONS 11, 1, [sym__documentation_block_comment]), (STATE 321, 1,
       [sym_additive_operator]), (STATE 1016, 1, [aux_sym_additive_expression_repeat1]), (STATE
       1005, 2, [sym_comment, sym_documentation_comment]), (ACTIONS 2596, 12, [anon_sym_QMARK,
       anon_sym_LT, anon_sym_GT, anon_sym_PIPE, anon_sym_AMP, anon_sym_GT_GT, anon_sym_SLASH,
       anon_sym_BANG, anon_sym_as, anon_sym_DOT, anon_sym_QMARK_DOT, anon_sym_async]), (ACTIONS
       2594, 24, [anon_sym_LBRACE, anon_sym_LBRACK, anon_sym_COMMA, anon_sym_LPAREN,
       anon_sym_QMARK_QMARK, sym_equality_operator, anon_sym_LT_EQ, anon_sym_GT_EQ,
       anon_sym_CARET, anon_sym_LT_LT, anon_sym_GT_GT_GT, sym__additive_operator, anon_sym_STAR,
       anon_sym_PERCENT, anon_sym_TILDE_SLASH, anon_sym_is, anon_sym_DOT_DOT,
       anon_sym_QMARK_DOT_DOT, anon_sym_SEMI, anon_sym_EQ_GT, anon_sym_async_STAR,
       anon_sym_sync_STAR, anon_sym_AMP_AMP, anon_sym_PIPE_PIPE])])]"

lemma small_run_332: "small_run 1004 45448 ts_small_parse_table_332 1006 45584"
  by (simp add: small_simps ts_small_parse_table_332_def)

definition ts_small_parse_table_333 :: "small_group list" where
  "ts_small_parse_table_333 = [
     (45584, 10, [(ACTIONS 3, 1, [anon_sym_SLASH_SLASH]), (ACTIONS 5, 1,
       [anon_sym_SLASH_STAR]), (ACTIONS 7, 1, [anon_sym_SLASH_SLASH_SLASH]), (ACTIONS 9, 1,
       [sym__block_comment]), (ACTIONS 11, 1, [sym__documentation_block_comment]), (ACTIONS 3098,
       1, [anon_sym_QMARK]), (STATE 1067, 1, [sym_nullable_type]), (STATE 1006, 2, [sym_comment,
       sym_documentation_comment]), (ACTIONS 2572, 11, [anon_sym_LT, anon_sym_GT, anon_sym_PIPE,
       anon_sym_AMP, anon_sym_GT_GT, anon_sym_SLASH, anon_sym_BANG, anon_sym_as, anon_sym_DOT,
       anon_sym_QMARK_DOT, anon_sym_async]), (ACTIONS 2567, 25, [anon_sym_LBRACE,
       anon_sym_LBRACK, anon_sym_COMMA, anon_sym_LPAREN, anon_sym_QMARK_QMARK,
       sym_equality_operator, anon_sym_LT_EQ, anon_sym_GT_EQ, anon_sym_CARET, anon_sym_LT_LT,
       anon_sym_GT_GT_GT, sym__additive_operator, anon_sym_STAR, anon_sym_PERCENT,
       anon_sym_TILDE_SLASH, anon_sym_is, anon_sym_DOT_DOT, anon_sym_QMARK_DOT_DOT,
       anon_sym_SEMI, anon_sym_EQ_GT, anon_sym_async_STAR, anon_sym_sync_STAR, anon_sym_Function,
       anon_sym_AMP_AMP, anon_sym_PIPE_PIPE])]),
     (45650, 11, [(ACTIONS 3, 1, [anon_sym_SLASH_SLASH]), (ACTIONS 5, 1,
       [anon_sym_SLASH_STAR]), (ACTIONS 7, 1, [anon_sym_SLASH_SLASH_SLASH]), (ACTIONS 9, 1,
       [sym__block_comment]), (ACTIONS 11, 1, [sym__documentation_block_comment]), (STATE 829, 1,
       [aux_sym__expression_repeat1]), (STATE 914, 1, [sym_cascade_section]), (ACTIONS 1465, 2,
       [anon_sym_DOT_DOT, anon_sym_QMARK_DOT_DOT]), (STATE 1007, 2, [sym_comment,
       sym_documentation_comment]), (ACTIONS 2559, 10, [anon_sym_QMARK, anon_sym_LT, anon_sym_GT,
       anon_sym_PIPE, anon_sym_AMP, anon_sym_GT_GT, anon_sym_SLASH, anon_sym_BANG, anon_sym_DOT,
       anon_sym_QMARK_DOT]), (ACTIONS 2557, 24, [anon_sym_RBRACE, anon_sym_LBRACK,
       anon_sym_COMMA, anon_sym_RBRACK, anon_sym_COLON, anon_sym_LPAREN, anon_sym_RPAREN,
       anon_sym_QMARK_QMARK, sym_equality_operator, anon_sym_LT_EQ, anon_sym_GT_EQ,
       anon_sym_CARET, anon_sym_LT_LT, anon_sym_GT_GT_GT, sym__additive_operator, anon_sym_STAR,
       anon_sym_PERCENT, anon_sym_TILDE_SLASH, anon_sym_is, anon_sym_as, anon_sym_EQ_GT,
       anon_sym_when, anon_sym_AMP_AMP, anon_sym_PIPE_PIPE])])]"

lemma small_run_333: "small_run 1006 45584 ts_small_parse_table_333 1008 45718"
  by (simp add: small_simps ts_small_parse_table_333_def)

definition ts_small_parse_table_334 :: "small_group list" where
  "ts_small_parse_table_334 = [
     (45718, 10, [(ACTIONS 3, 1, [anon_sym_SLASH_SLASH]), (ACTIONS 5, 1,
       [anon_sym_SLASH_STAR]), (ACTIONS 7, 1, [anon_sym_SLASH_SLASH_SLASH]), (ACTIONS 9, 1,
       [sym__block_comment]), (ACTIONS 11, 1, [sym__documentation_block_comment]), (STATE 334, 1,
       [sym_logical_and_operator]), (STATE 1021, 1, [aux_sym_logical_and_expression_repeat1]),
       (STATE 1008, 2, [sym_comment, sym_documentation_comment]), (ACTIONS 2604, 12,
       [anon_sym_QMARK, anon_sym_LT, anon_sym_GT, anon_sym_PIPE, anon_sym_AMP, anon_sym_GT_GT,
       anon_sym_SLASH, anon_sym_BANG, anon_sym_as, anon_sym_DOT, anon_sym_QMARK_DOT,
       anon_sym_async]), (ACTIONS 2602, 24, [anon_sym_LBRACE, anon_sym_LBRACK, anon_sym_COMMA,
       anon_sym_LPAREN, anon_sym_QMARK_QMARK, sym_equality_operator, anon_sym_LT_EQ,
       anon_sym_GT_EQ, anon_sym_CARET, anon_sym_LT_LT, anon_sym_GT_GT_GT, sym__additive_operator,
       anon_sym_STAR, anon_sym_PERCENT, anon_sym_TILDE_SLASH, anon_sym_is, anon_sym_DOT_DOT,
       anon_sym_QMARK_DOT_DOT, anon_sym_SEMI, anon_sym_EQ_GT, anon_sym_async_STAR,
       anon_sym_sync_STAR, anon_sym_AMP_AMP, anon_sym_PIPE_PIPE])]),
     (45784, 11, [(ACTIONS 3, 1, [anon_sym_SLASH_SLASH]), (ACTIONS 5, 1,
       [anon_sym_SLASH_STAR]), (ACTIONS 7, 1, [anon_sym_SLASH_SLASH_SLASH]), (ACTIONS 9, 1,
       [sym__block_comment]), (ACTIONS 11, 1, [sym__documentation_block_comment]), (ACTIONS 1680,
       2, [anon_sym_LBRACK, anon_sym_LPAREN]), (ACTIONS 2829, 2, [anon_sym_QMARK, anon_sym_LT]),
       (STATE 1009, 2, [sym_comment, sym_documentation_comment]), (ACTIONS 1686, 3,
       [anon_sym_BANG, anon_sym_DOT, anon_sym_QMARK_DOT]), (ACTIONS 1699, 5, [anon_sym_GT,
       anon_sym_PIPE, anon_sym_AMP, anon_sym_GT_GT, anon_sym_SLASH]), (ACTIONS 1701, 26,
       [anon_sym_RBRACE, anon_sym_COMMA, anon_sym_RBRACK, anon_sym_COLON, anon_sym_RPAREN,
       anon_sym_QMARK_QMARK, sym_equality_operator, anon_sym_LT_EQ, anon_sym_GT_EQ,
       anon_sym_CARET, anon_sym_LT_LT, anon_sym_GT_GT_GT, sym__additive_operator, anon_sym_STAR,
       anon_sym_PERCENT, anon_sym_TILDE_SLASH, anon_sym_is, anon_sym_as, anon_sym_DOT_DOT,
       anon_sym_QMARK_DOT_DOT, anon_sym_SEMI, anon_sym_EQ_GT, anon_sym_case, anon_sym_else,
       anon_sym_AMP_AMP, anon_sym_PIPE_PIPE])])]"

lemma small_run_334: "small_run 1008 45718 ts_small_parse_table_334 1010 45852"
  by (simp add: small_simps ts_small_parse_table_334_def)

definition ts_small_parse_table_335 :: "small_group list" where
  "ts_small_parse_table_335 = [
     (45852, 10, [(ACTIONS 3, 1, [anon_sym_SLASH_SLASH]), (ACTIONS 5, 1,
       [anon_sym_SLASH_STAR]), (ACTIONS 7, 1, [anon_sym_SLASH_SLASH_SLASH]), (ACTIONS 9, 1,
       [sym__block_comment]), (ACTIONS 11, 1, [sym__documentation_block_comment]), (STATE 336, 1,
       [sym_logical_or_operator]), (STATE 1019, 1, [aux_sym_logical_or_expression_repeat1]),
       (STATE 1010, 2, [sym_comment, sym_documentation_comment]), (ACTIONS 2600, 12,
       [anon_sym_QMARK, anon_sym_LT, anon_sym_GT, anon_sym_PIPE, anon_sym_AMP, anon_sym_GT_GT,
       anon_sym_SLASH, anon_sym_BANG, anon_sym_as, anon_sym_DOT, anon_sym_QMARK_DOT,
       anon_sym_async]), (ACTIONS 2598, 24, [anon_sym_LBRACE, anon_sym_LBRACK, anon_sym_COMMA,
       anon_sym_LPAREN, anon_sym_QMARK_QMARK, sym_equality_operator, anon_sym_LT_EQ,
       anon_sym_GT_EQ, anon_sym_CARET, anon_sym_LT_LT, anon_sym_GT_GT_GT, sym__additive_operator,
       anon_sym_STAR, anon_sym_PERCENT, anon_sym_TILDE_SLASH, anon_sym_is, anon_sym_DOT_DOT,
       anon_sym_QMARK_DOT_DOT, anon_sym_SEMI, anon_sym_EQ_GT, anon_sym_async_STAR,
       anon_sym_sync_STAR, anon_sym_AMP_AMP, anon_sym_PIPE_PIPE])]),
     (45918, 10, [(ACTIONS 3, 1, [anon_sym_SLASH_SLASH]), (ACTIONS 5, 1,
       [anon_sym_SLASH_STAR]), (ACTIONS 7, 1, [anon_sym_SLASH_SLASH_SLASH]), (ACTIONS 9, 1,
       [sym__block_comment]), (ACTIONS 11, 1, [sym__documentation_block_comment]), (ACTIONS 3101,
       1, [anon_sym_DOT]), (STATE 1038, 1, [sym__type_dot_identifier]), (STATE 1011, 2,
       [sym_comment, sym_documentation_comment]), (ACTIONS 1320, 11, [anon_sym_QMARK,
       anon_sym_LT, anon_sym_GT, anon_sym_PIPE, anon_sym_AMP, anon_sym_GT_GT, anon_sym_SLASH,
       anon_sym_BANG, anon_sym_as, anon_sym_QMARK_DOT, anon_sym_async]), (ACTIONS 2015, 25,
       [anon_sym_LBRACE, anon_sym_LBRACK, anon_sym_COMMA, anon_sym_LPAREN, anon_sym_QMARK_QMARK,
       sym_equality_operator, anon_sym_LT_EQ, anon_sym_GT_EQ, anon_sym_CARET, anon_sym_LT_LT,
       anon_sym_GT_GT_GT, sym__additive_operator, anon_sym_STAR, anon_sym_PERCENT,
       anon_sym_TILDE_SLASH, anon_sym_is, anon_sym_DOT_DOT, anon_sym_QMARK_DOT_DOT,
       anon_sym_SEMI, anon_sym_EQ_GT, anon_sym_async_STAR, anon_sym_sync_STAR, anon_sym_Function,
       anon_sym_AMP_AMP, anon_sym_PIPE_PIPE])])]"

lemma small_run_335: "small_run 1010 45852 ts_small_parse_table_335 1012 45984"
  by (simp add: small_simps ts_small_parse_table_335_def)

definition ts_small_parse_table_part_3 :: "small_group list" where
  "ts_small_parse_table_part_3 =
     ts_small_parse_table_222 @ ts_small_parse_table_223 @ ts_small_parse_table_224 @
     ts_small_parse_table_225 @ ts_small_parse_table_226 @ ts_small_parse_table_227 @
     ts_small_parse_table_228 @ ts_small_parse_table_229 @ ts_small_parse_table_230 @
     ts_small_parse_table_231 @ ts_small_parse_table_232 @ ts_small_parse_table_233 @
     ts_small_parse_table_234 @ ts_small_parse_table_235 @ ts_small_parse_table_236 @
     ts_small_parse_table_237 @ ts_small_parse_table_238 @ ts_small_parse_table_239 @
     ts_small_parse_table_240 @ ts_small_parse_table_241 @ ts_small_parse_table_242 @
     ts_small_parse_table_243 @ ts_small_parse_table_244 @ ts_small_parse_table_245 @
     ts_small_parse_table_246 @ ts_small_parse_table_247 @ ts_small_parse_table_248 @
     ts_small_parse_table_249 @ ts_small_parse_table_250 @ ts_small_parse_table_251 @
     ts_small_parse_table_252 @ ts_small_parse_table_253 @ ts_small_parse_table_254 @
     ts_small_parse_table_255 @ ts_small_parse_table_256 @ ts_small_parse_table_257 @
     ts_small_parse_table_258 @ ts_small_parse_table_259 @ ts_small_parse_table_260 @
     ts_small_parse_table_261 @ ts_small_parse_table_262 @ ts_small_parse_table_263 @
     ts_small_parse_table_264 @ ts_small_parse_table_265 @ ts_small_parse_table_266 @
     ts_small_parse_table_267 @ ts_small_parse_table_268 @ ts_small_parse_table_269 @
     ts_small_parse_table_270 @ ts_small_parse_table_271 @ ts_small_parse_table_272 @
     ts_small_parse_table_273 @ ts_small_parse_table_274 @ ts_small_parse_table_275 @
     ts_small_parse_table_276 @ ts_small_parse_table_277 @ ts_small_parse_table_278 @
     ts_small_parse_table_279 @ ts_small_parse_table_280 @ ts_small_parse_table_281 @
     ts_small_parse_table_282 @ ts_small_parse_table_283 @ ts_small_parse_table_284 @
     ts_small_parse_table_285 @ ts_small_parse_table_286 @ ts_small_parse_table_287 @
     ts_small_parse_table_288 @ ts_small_parse_table_289 @ ts_small_parse_table_290 @
     ts_small_parse_table_291 @ ts_small_parse_table_292 @ ts_small_parse_table_293 @
     ts_small_parse_table_294 @ ts_small_parse_table_295 @ ts_small_parse_table_296 @
     ts_small_parse_table_297 @ ts_small_parse_table_298 @ ts_small_parse_table_299 @
     ts_small_parse_table_300 @ ts_small_parse_table_301 @ ts_small_parse_table_302 @
     ts_small_parse_table_303 @ ts_small_parse_table_304 @ ts_small_parse_table_305 @
     ts_small_parse_table_306 @ ts_small_parse_table_307 @ ts_small_parse_table_308 @
     ts_small_parse_table_309 @ ts_small_parse_table_310 @ ts_small_parse_table_311 @
     ts_small_parse_table_312 @ ts_small_parse_table_313 @ ts_small_parse_table_314 @
     ts_small_parse_table_315 @ ts_small_parse_table_316 @ ts_small_parse_table_317 @
     ts_small_parse_table_318 @ ts_small_parse_table_319 @ ts_small_parse_table_320 @
     ts_small_parse_table_321 @ ts_small_parse_table_322 @ ts_small_parse_table_323 @
     ts_small_parse_table_324 @ ts_small_parse_table_325 @ ts_small_parse_table_326 @
     ts_small_parse_table_327 @ ts_small_parse_table_328 @ ts_small_parse_table_329 @
     ts_small_parse_table_330 @ ts_small_parse_table_331 @ ts_small_parse_table_332 @
     ts_small_parse_table_333 @ ts_small_parse_table_334 @ ts_small_parse_table_335"

lemma small_part_3: "small_run 790 30612 ts_small_parse_table_part_3 1012 45984"
  unfolding ts_small_parse_table_part_3_def
  by (rule small_run_append [OF small_run_222], rule small_run_append [OF small_run_223],
    rule small_run_append [OF small_run_224], rule small_run_append [OF small_run_225],
    rule small_run_append [OF small_run_226], rule small_run_append [OF small_run_227],
    rule small_run_append [OF small_run_228], rule small_run_append [OF small_run_229],
    rule small_run_append [OF small_run_230], rule small_run_append [OF small_run_231],
    rule small_run_append [OF small_run_232], rule small_run_append [OF small_run_233],
    rule small_run_append [OF small_run_234], rule small_run_append [OF small_run_235],
    rule small_run_append [OF small_run_236], rule small_run_append [OF small_run_237],
    rule small_run_append [OF small_run_238], rule small_run_append [OF small_run_239],
    rule small_run_append [OF small_run_240], rule small_run_append [OF small_run_241],
    rule small_run_append [OF small_run_242], rule small_run_append [OF small_run_243],
    rule small_run_append [OF small_run_244], rule small_run_append [OF small_run_245],
    rule small_run_append [OF small_run_246], rule small_run_append [OF small_run_247],
    rule small_run_append [OF small_run_248], rule small_run_append [OF small_run_249],
    rule small_run_append [OF small_run_250], rule small_run_append [OF small_run_251],
    rule small_run_append [OF small_run_252], rule small_run_append [OF small_run_253],
    rule small_run_append [OF small_run_254], rule small_run_append [OF small_run_255],
    rule small_run_append [OF small_run_256], rule small_run_append [OF small_run_257],
    rule small_run_append [OF small_run_258], rule small_run_append [OF small_run_259],
    rule small_run_append [OF small_run_260], rule small_run_append [OF small_run_261],
    rule small_run_append [OF small_run_262], rule small_run_append [OF small_run_263],
    rule small_run_append [OF small_run_264], rule small_run_append [OF small_run_265],
    rule small_run_append [OF small_run_266], rule small_run_append [OF small_run_267],
    rule small_run_append [OF small_run_268], rule small_run_append [OF small_run_269],
    rule small_run_append [OF small_run_270], rule small_run_append [OF small_run_271],
    rule small_run_append [OF small_run_272], rule small_run_append [OF small_run_273],
    rule small_run_append [OF small_run_274], rule small_run_append [OF small_run_275],
    rule small_run_append [OF small_run_276], rule small_run_append [OF small_run_277],
    rule small_run_append [OF small_run_278], rule small_run_append [OF small_run_279],
    rule small_run_append [OF small_run_280], rule small_run_append [OF small_run_281],
    rule small_run_append [OF small_run_282], rule small_run_append [OF small_run_283],
    rule small_run_append [OF small_run_284], rule small_run_append [OF small_run_285],
    rule small_run_append [OF small_run_286], rule small_run_append [OF small_run_287],
    rule small_run_append [OF small_run_288], rule small_run_append [OF small_run_289],
    rule small_run_append [OF small_run_290], rule small_run_append [OF small_run_291],
    rule small_run_append [OF small_run_292], rule small_run_append [OF small_run_293],
    rule small_run_append [OF small_run_294], rule small_run_append [OF small_run_295],
    rule small_run_append [OF small_run_296], rule small_run_append [OF small_run_297],
    rule small_run_append [OF small_run_298], rule small_run_append [OF small_run_299],
    rule small_run_append [OF small_run_300], rule small_run_append [OF small_run_301],
    rule small_run_append [OF small_run_302], rule small_run_append [OF small_run_303],
    rule small_run_append [OF small_run_304], rule small_run_append [OF small_run_305],
    rule small_run_append [OF small_run_306], rule small_run_append [OF small_run_307],
    rule small_run_append [OF small_run_308], rule small_run_append [OF small_run_309],
    rule small_run_append [OF small_run_310], rule small_run_append [OF small_run_311],
    rule small_run_append [OF small_run_312], rule small_run_append [OF small_run_313],
    rule small_run_append [OF small_run_314], rule small_run_append [OF small_run_315],
    rule small_run_append [OF small_run_316], rule small_run_append [OF small_run_317],
    rule small_run_append [OF small_run_318], rule small_run_append [OF small_run_319],
    rule small_run_append [OF small_run_320], rule small_run_append [OF small_run_321],
    rule small_run_append [OF small_run_322], rule small_run_append [OF small_run_323],
    rule small_run_append [OF small_run_324], rule small_run_append [OF small_run_325],
    rule small_run_append [OF small_run_326], rule small_run_append [OF small_run_327],
    rule small_run_append [OF small_run_328], rule small_run_append [OF small_run_329],
    rule small_run_append [OF small_run_330], rule small_run_append [OF small_run_331],
    rule small_run_append [OF small_run_332], rule small_run_append [OF small_run_333],
    rule small_run_append [OF small_run_334], rule small_run_335)

end
