(* ===== verification/Dart_Small_4.thy ===== *)
theory Dart_Small_4
  imports Dart_Items
begin

text \<open>
  The groups of \<^verbatim>\<open>ts_small_parse_table\<close> for the states 1012 to 1257, in blocks of at most 150 lines of
  the source, each with the check of its layout and of its entries.
\<close>

definition ts_small_parse_table_336 :: "small_group list" where
  "ts_small_parse_table_336 = [
     (45984, 11, [(ACTIONS 3, 1, [anon_sym_SLASH_SLASH]), (ACTIONS 5, 1,
       [anon_sym_SLASH_STAR]), (ACTIONS 7, 1, [anon_sym_SLASH_SLASH_SLASH]), (ACTIONS 9, 1,
       [sym__block_comment]), (ACTIONS 11, 1, [sym__documentation_block_comment]), (STATE 1017,
       1, [aux_sym__expression_repeat1]), (STATE 1133, 1, [sym_cascade_section]), (ACTIONS 3104,
       2, [anon_sym_DOT_DOT, anon_sym_QMARK_DOT_DOT]), (STATE 1012, 2, [sym_comment,
       sym_documentation_comment]), (ACTIONS 2559, 12, [anon_sym_QMARK, anon_sym_LT, anon_sym_GT,
       anon_sym_PIPE, anon_sym_AMP, anon_sym_GT_GT, anon_sym_SLASH, anon_sym_BANG, anon_sym_as,
       anon_sym_DOT, anon_sym_QMARK_DOT, anon_sym_async]), (ACTIONS 2557, 22, [anon_sym_LBRACE,
       anon_sym_LBRACK, anon_sym_COMMA, anon_sym_LPAREN, anon_sym_QMARK_QMARK,
       sym_equality_operator, anon_sym_LT_EQ, anon_sym_GT_EQ, anon_sym_CARET, anon_sym_LT_LT,
       anon_sym_GT_GT_GT, sym__additive_operator, anon_sym_STAR, anon_sym_PERCENT,
       anon_sym_TILDE_SLASH, anon_sym_is, anon_sym_SEMI, anon_sym_EQ_GT, anon_sym_async_STAR,
       anon_sym_sync_STAR, anon_sym_AMP_AMP, anon_sym_PIPE_PIPE])]),
     (46052, 10, [(ACTIONS 3, 1, [anon_sym_SLASH_SLASH]), (ACTIONS 5, 1,
       [anon_sym_SLASH_STAR]), (ACTIONS 7, 1, [anon_sym_SLASH_SLASH_SLASH]), (ACTIONS 9, 1,
       [sym__block_comment]), (ACTIONS 11, 1, [sym__documentation_block_comment]), (ACTIONS 3107,
       1, [anon_sym_QMARK]), (STATE 1040, 1, [sym_nullable_type]), (STATE 1013, 2, [sym_comment,
       sym_documentation_comment]), (ACTIONS 2555, 11, [anon_sym_LT, anon_sym_GT, anon_sym_PIPE,
       anon_sym_AMP, anon_sym_GT_GT, anon_sym_SLASH, anon_sym_BANG, anon_sym_as, anon_sym_DOT,
       anon_sym_QMARK_DOT, anon_sym_async]), (ACTIONS 2550, 25, [anon_sym_LBRACE,
       anon_sym_LBRACK, anon_sym_COMMA, anon_sym_LPAREN, anon_sym_QMARK_QMARK,
       sym_equality_operator, anon_sym_LT_EQ, anon_sym_GT_EQ, anon_sym_CARET, anon_sym_LT_LT,
       anon_sym_GT_GT_GT, sym__additive_operator, anon_sym_STAR, anon_sym_PERCENT,
       anon_sym_TILDE_SLASH, anon_sym_is, anon_sym_DOT_DOT, anon_sym_QMARK_DOT_DOT,
       anon_sym_SEMI, anon_sym_EQ_GT, anon_sym_async_STAR, anon_sym_sync_STAR, anon_sym_Function,
       anon_sym_AMP_AMP, anon_sym_PIPE_PIPE])])]"

lemma small_run_336: "small_run 1012 45984 ts_small_parse_table_336 1014 46118"
  by (simp add: small_simps ts_small_parse_table_336_def)

definition ts_small_parse_table_337 :: "small_group list" where
  "ts_small_parse_table_337 = [
     (46118, 10, [(ACTIONS 3, 1, [anon_sym_SLASH_SLASH]), (ACTIONS 5, 1,
       [anon_sym_SLASH_STAR]), (ACTIONS 7, 1, [anon_sym_SLASH_SLASH_SLASH]), (ACTIONS 9, 1,
       [sym__block_comment]), (ACTIONS 11, 1, [sym__documentation_block_comment]), (ACTIONS 2893,
       1, [anon_sym_QMARK]), (STATE 1026, 1, [sym_nullable_type]), (STATE 1014, 2, [sym_comment,
       sym_documentation_comment]), (ACTIONS 2515, 11, [anon_sym_LT, anon_sym_GT, anon_sym_PIPE,
       anon_sym_AMP, anon_sym_GT_GT, anon_sym_SLASH, anon_sym_BANG, anon_sym_as, anon_sym_DOT,
       anon_sym_QMARK_DOT, anon_sym_async]), (ACTIONS 2507, 25, [anon_sym_LBRACE,
       anon_sym_LBRACK, anon_sym_COMMA, anon_sym_LPAREN, anon_sym_QMARK_QMARK,
       sym_equality_operator, anon_sym_LT_EQ, anon_sym_GT_EQ, anon_sym_CARET, anon_sym_LT_LT,
       anon_sym_GT_GT_GT, sym__additive_operator, anon_sym_STAR, anon_sym_PERCENT,
       anon_sym_TILDE_SLASH, anon_sym_is, anon_sym_DOT_DOT, anon_sym_QMARK_DOT_DOT,
       anon_sym_SEMI, anon_sym_EQ_GT, anon_sym_async_STAR, anon_sym_sync_STAR, anon_sym_Function,
       anon_sym_AMP_AMP, anon_sym_PIPE_PIPE])]),
     (46184, 11, [(ACTIONS 3, 1, [anon_sym_SLASH_SLASH]), (ACTIONS 5, 1,
       [anon_sym_SLASH_STAR]), (ACTIONS 7, 1, [anon_sym_SLASH_SLASH_SLASH]), (ACTIONS 9, 1,
       [sym__block_comment]), (ACTIONS 11, 1, [sym__documentation_block_comment]), (ACTIONS 2548,
       1, [anon_sym_Function]), (ACTIONS 3110, 1, [anon_sym_QMARK]), (STATE 1037, 1,
       [sym_nullable_type]), (STATE 1015, 2, [sym_comment, sym_documentation_comment]), (ACTIONS
       2546, 11, [anon_sym_LT, anon_sym_GT, anon_sym_PIPE, anon_sym_AMP, anon_sym_GT_GT,
       anon_sym_SLASH, anon_sym_BANG, anon_sym_as, anon_sym_DOT, anon_sym_QMARK_DOT,
       anon_sym_async]), (ACTIONS 2541, 24, [anon_sym_LBRACE, anon_sym_LBRACK, anon_sym_COMMA,
       anon_sym_LPAREN, anon_sym_QMARK_QMARK, sym_equality_operator, anon_sym_LT_EQ,
       anon_sym_GT_EQ, anon_sym_CARET, anon_sym_LT_LT, anon_sym_GT_GT_GT, sym__additive_operator,
       anon_sym_STAR, anon_sym_PERCENT, anon_sym_TILDE_SLASH, anon_sym_is, anon_sym_DOT_DOT,
       anon_sym_QMARK_DOT_DOT, anon_sym_SEMI, anon_sym_EQ_GT, anon_sym_async_STAR,
       anon_sym_sync_STAR, anon_sym_AMP_AMP, anon_sym_PIPE_PIPE])])]"

lemma small_run_337: "small_run 1014 46118 ts_small_parse_table_337 1016 46252"
  by (simp add: small_simps ts_small_parse_table_337_def)

definition ts_small_parse_table_338 :: "small_group list" where
  "ts_small_parse_table_338 = [
     (46252, 10, [(ACTIONS 3, 1, [anon_sym_SLASH_SLASH]), (ACTIONS 5, 1,
       [anon_sym_SLASH_STAR]), (ACTIONS 7, 1, [anon_sym_SLASH_SLASH_SLASH]), (ACTIONS 9, 1,
       [sym__block_comment]), (ACTIONS 11, 1, [sym__documentation_block_comment]), (ACTIONS 2577,
       1, [sym__additive_operator]), (STATE 321, 1, [sym_additive_operator]), (STATE 1016, 3,
       [sym_comment, sym_documentation_comment, aux_sym_additive_expression_repeat1]), (ACTIONS
       1355, 12, [anon_sym_QMARK, anon_sym_LT, anon_sym_GT, anon_sym_PIPE, anon_sym_AMP,
       anon_sym_GT_GT, anon_sym_SLASH, anon_sym_BANG, anon_sym_as, anon_sym_DOT,
       anon_sym_QMARK_DOT, anon_sym_async]), (ACTIONS 1353, 23, [anon_sym_LBRACE,
       anon_sym_LBRACK, anon_sym_COMMA, anon_sym_LPAREN, anon_sym_QMARK_QMARK,
       sym_equality_operator, anon_sym_LT_EQ, anon_sym_GT_EQ, anon_sym_CARET, anon_sym_LT_LT,
       anon_sym_GT_GT_GT, anon_sym_STAR, anon_sym_PERCENT, anon_sym_TILDE_SLASH, anon_sym_is,
       anon_sym_DOT_DOT, anon_sym_QMARK_DOT_DOT, anon_sym_SEMI, anon_sym_EQ_GT,
       anon_sym_async_STAR, anon_sym_sync_STAR, anon_sym_AMP_AMP, anon_sym_PIPE_PIPE])]),
     (46318, 10, [(ACTIONS 3, 1, [anon_sym_SLASH_SLASH]), (ACTIONS 5, 1,
       [anon_sym_SLASH_STAR]), (ACTIONS 7, 1, [anon_sym_SLASH_SLASH_SLASH]), (ACTIONS 9, 1,
       [sym__block_comment]), (ACTIONS 11, 1, [sym__documentation_block_comment]), (STATE 1133,
       1, [sym_cascade_section]), (ACTIONS 3113, 2, [anon_sym_DOT_DOT, anon_sym_QMARK_DOT_DOT]),
       (STATE 1017, 3, [sym_comment, sym_documentation_comment, aux_sym__expression_repeat1]),
       (ACTIONS 2587, 12, [anon_sym_QMARK, anon_sym_LT, anon_sym_GT, anon_sym_PIPE, anon_sym_AMP,
       anon_sym_GT_GT, anon_sym_SLASH, anon_sym_BANG, anon_sym_as, anon_sym_DOT,
       anon_sym_QMARK_DOT, anon_sym_async]), (ACTIONS 2585, 22, [anon_sym_LBRACE,
       anon_sym_LBRACK, anon_sym_COMMA, anon_sym_LPAREN, anon_sym_QMARK_QMARK,
       sym_equality_operator, anon_sym_LT_EQ, anon_sym_GT_EQ, anon_sym_CARET, anon_sym_LT_LT,
       anon_sym_GT_GT_GT, sym__additive_operator, anon_sym_STAR, anon_sym_PERCENT,
       anon_sym_TILDE_SLASH, anon_sym_is, anon_sym_SEMI, anon_sym_EQ_GT, anon_sym_async_STAR,
       anon_sym_sync_STAR, anon_sym_AMP_AMP, anon_sym_PIPE_PIPE])])]"

lemma small_run_338: "small_run 1016 46252 ts_small_parse_table_338 1018 46384"
  by (simp add: small_simps ts_small_parse_table_338_def)

definition ts_small_parse_table_339 :: "small_group list" where
  "ts_small_parse_table_339 = [
     (46384, 11, [(ACTIONS 3, 1, [anon_sym_SLASH_SLASH]), (ACTIONS 5, 1,
       [anon_sym_SLASH_STAR]), (ACTIONS 7, 1, [anon_sym_SLASH_SLASH_SLASH]), (ACTIONS 9, 1,
       [sym__block_comment]), (ACTIONS 11, 1, [sym__documentation_block_comment]), (ACTIONS 1672,
       2, [anon_sym_LBRACK, anon_sym_LPAREN]), (ACTIONS 2859, 2, [anon_sym_QMARK, anon_sym_LT]),
       (STATE 1018, 2, [sym_comment, sym_documentation_comment]), (ACTIONS 1678, 3,
       [anon_sym_BANG, anon_sym_DOT, anon_sym_QMARK_DOT]), (ACTIONS 1674, 5, [anon_sym_GT,
       anon_sym_PIPE, anon_sym_AMP, anon_sym_GT_GT, anon_sym_SLASH]), (ACTIONS 1676, 26,
       [anon_sym_RBRACE, anon_sym_COMMA, anon_sym_RBRACK, anon_sym_COLON, anon_sym_RPAREN,
       anon_sym_QMARK_QMARK, sym_equality_operator, anon_sym_LT_EQ, anon_sym_GT_EQ,
       anon_sym_CARET, anon_sym_LT_LT, anon_sym_GT_GT_GT, sym__additive_operator, anon_sym_STAR,
       anon_sym_PERCENT, anon_sym_TILDE_SLASH, anon_sym_is, anon_sym_as, anon_sym_DOT_DOT,
       anon_sym_QMARK_DOT_DOT, anon_sym_SEMI, anon_sym_EQ_GT, anon_sym_case, anon_sym_else,
       anon_sym_AMP_AMP, anon_sym_PIPE_PIPE])]),
     (46452, 10, [(ACTIONS 3, 1, [anon_sym_SLASH_SLASH]), (ACTIONS 5, 1,
       [anon_sym_SLASH_STAR]), (ACTIONS 7, 1, [anon_sym_SLASH_SLASH_SLASH]), (ACTIONS 9, 1,
       [sym__block_comment]), (ACTIONS 11, 1, [sym__documentation_block_comment]), (ACTIONS 2564,
       1, [anon_sym_PIPE_PIPE]), (STATE 336, 1, [sym_logical_or_operator]), (STATE 1019, 3,
       [sym_comment, sym_documentation_comment, aux_sym_logical_or_expression_repeat1]), (ACTIONS
       1416, 12, [anon_sym_QMARK, anon_sym_LT, anon_sym_GT, anon_sym_PIPE, anon_sym_AMP,
       anon_sym_GT_GT, anon_sym_SLASH, anon_sym_BANG, anon_sym_as, anon_sym_DOT,
       anon_sym_QMARK_DOT, anon_sym_async]), (ACTIONS 1414, 23, [anon_sym_LBRACE,
       anon_sym_LBRACK, anon_sym_COMMA, anon_sym_LPAREN, anon_sym_QMARK_QMARK,
       sym_equality_operator, anon_sym_LT_EQ, anon_sym_GT_EQ, anon_sym_CARET, anon_sym_LT_LT,
       anon_sym_GT_GT_GT, sym__additive_operator, anon_sym_STAR, anon_sym_PERCENT,
       anon_sym_TILDE_SLASH, anon_sym_is, anon_sym_DOT_DOT, anon_sym_QMARK_DOT_DOT,
       anon_sym_SEMI, anon_sym_EQ_GT, anon_sym_async_STAR, anon_sym_sync_STAR,
       anon_sym_AMP_AMP])])]"

lemma small_run_339: "small_run 1018 46384 ts_small_parse_table_339 1020 46518"
  by (simp add: small_simps ts_small_parse_table_339_def)

definition ts_small_parse_table_340 :: "small_group list" where
  "ts_small_parse_table_340 = [
     (46518, 11, [(ACTIONS 3, 1, [anon_sym_SLASH_SLASH]), (ACTIONS 5, 1,
       [anon_sym_SLASH_STAR]), (ACTIONS 7, 1, [anon_sym_SLASH_SLASH_SLASH]), (ACTIONS 9, 1,
       [sym__block_comment]), (ACTIONS 11, 1, [sym__documentation_block_comment]), (ACTIONS 1680,
       2, [anon_sym_LBRACK, anon_sym_LPAREN]), (ACTIONS 2869, 2, [anon_sym_QMARK, anon_sym_LT]),
       (STATE 1020, 2, [sym_comment, sym_documentation_comment]), (ACTIONS 1686, 3,
       [anon_sym_BANG, anon_sym_DOT, anon_sym_QMARK_DOT]), (ACTIONS 1682, 5, [anon_sym_GT,
       anon_sym_PIPE, anon_sym_AMP, anon_sym_GT_GT, anon_sym_SLASH]), (ACTIONS 1684, 26,
       [anon_sym_RBRACE, anon_sym_COMMA, anon_sym_RBRACK, anon_sym_COLON, anon_sym_RPAREN,
       anon_sym_QMARK_QMARK, sym_equality_operator, anon_sym_LT_EQ, anon_sym_GT_EQ,
       anon_sym_CARET, anon_sym_LT_LT, anon_sym_GT_GT_GT, sym__additive_operator, anon_sym_STAR,
       anon_sym_PERCENT, anon_sym_TILDE_SLASH, anon_sym_is, anon_sym_as, anon_sym_DOT_DOT,
       anon_sym_QMARK_DOT_DOT, anon_sym_SEMI, anon_sym_EQ_GT, anon_sym_case, anon_sym_else,
       anon_sym_AMP_AMP, anon_sym_PIPE_PIPE])]),
     (46586, 10, [(ACTIONS 3, 1, [anon_sym_SLASH_SLASH]), (ACTIONS 5, 1,
       [anon_sym_SLASH_STAR]), (ACTIONS 7, 1, [anon_sym_SLASH_SLASH_SLASH]), (ACTIONS 9, 1,
       [sym__block_comment]), (ACTIONS 11, 1, [sym__documentation_block_comment]), (ACTIONS 2574,
       1, [anon_sym_AMP_AMP]), (STATE 334, 1, [sym_logical_and_operator]), (STATE 1021, 3,
       [sym_comment, sym_documentation_comment, aux_sym_logical_and_expression_repeat1]),
       (ACTIONS 1434, 12, [anon_sym_QMARK, anon_sym_LT, anon_sym_GT, anon_sym_PIPE, anon_sym_AMP,
       anon_sym_GT_GT, anon_sym_SLASH, anon_sym_BANG, anon_sym_as, anon_sym_DOT,
       anon_sym_QMARK_DOT, anon_sym_async]), (ACTIONS 1432, 23, [anon_sym_LBRACE,
       anon_sym_LBRACK, anon_sym_COMMA, anon_sym_LPAREN, anon_sym_QMARK_QMARK,
       sym_equality_operator, anon_sym_LT_EQ, anon_sym_GT_EQ, anon_sym_CARET, anon_sym_LT_LT,
       anon_sym_GT_GT_GT, sym__additive_operator, anon_sym_STAR, anon_sym_PERCENT,
       anon_sym_TILDE_SLASH, anon_sym_is, anon_sym_DOT_DOT, anon_sym_QMARK_DOT_DOT,
       anon_sym_SEMI, anon_sym_EQ_GT, anon_sym_async_STAR, anon_sym_sync_STAR,
       anon_sym_PIPE_PIPE])])]"

lemma small_run_340: "small_run 1020 46518 ts_small_parse_table_340 1022 46652"
  by (simp add: small_simps ts_small_parse_table_340_def)

definition ts_small_parse_table_341 :: "small_group list" where
  "ts_small_parse_table_341 = [
     (46652, 10, [(ACTIONS 3, 1, [anon_sym_SLASH_SLASH]), (ACTIONS 5, 1,
       [anon_sym_SLASH_STAR]), (ACTIONS 7, 1, [anon_sym_SLASH_SLASH_SLASH]), (ACTIONS 9, 1,
       [sym__block_comment]), (ACTIONS 11, 1, [sym__documentation_block_comment]), (ACTIONS 2887,
       1, [anon_sym_QMARK]), (STATE 1073, 1, [sym_nullable_type]), (STATE 1022, 2, [sym_comment,
       sym_documentation_comment]), (ACTIONS 2487, 11, [anon_sym_LT, anon_sym_GT, anon_sym_PIPE,
       anon_sym_AMP, anon_sym_GT_GT, anon_sym_SLASH, anon_sym_BANG, anon_sym_as, anon_sym_DOT,
       anon_sym_QMARK_DOT, anon_sym_async]), (ACTIONS 2479, 25, [anon_sym_LBRACE,
       anon_sym_LBRACK, anon_sym_COMMA, anon_sym_LPAREN, anon_sym_QMARK_QMARK,
       sym_equality_operator, anon_sym_LT_EQ, anon_sym_GT_EQ, anon_sym_CARET, anon_sym_LT_LT,
       anon_sym_GT_GT_GT, sym__additive_operator, anon_sym_STAR, anon_sym_PERCENT,
       anon_sym_TILDE_SLASH, anon_sym_is, anon_sym_DOT_DOT, anon_sym_QMARK_DOT_DOT,
       anon_sym_SEMI, anon_sym_EQ_GT, anon_sym_async_STAR, anon_sym_sync_STAR, anon_sym_Function,
       anon_sym_AMP_AMP, anon_sym_PIPE_PIPE])]),
     (46718, 8, [(ACTIONS 3, 1, [anon_sym_SLASH_SLASH]), (ACTIONS 5, 1, [anon_sym_SLASH_STAR]),
       (ACTIONS 7, 1, [anon_sym_SLASH_SLASH_SLASH]), (ACTIONS 9, 1, [sym__block_comment]),
       (ACTIONS 11, 1, [sym__documentation_block_comment]), (STATE 1023, 2, [sym_comment,
       sym_documentation_comment]), (ACTIONS 2608, 12, [anon_sym_QMARK, anon_sym_LT, anon_sym_GT,
       anon_sym_PIPE, anon_sym_AMP, anon_sym_GT_GT, anon_sym_SLASH, anon_sym_BANG, anon_sym_as,
       anon_sym_DOT, anon_sym_QMARK_DOT, anon_sym_async]), (ACTIONS 2606, 25, [anon_sym_LBRACE,
       anon_sym_LBRACK, anon_sym_COMMA, anon_sym_LPAREN, anon_sym_QMARK_QMARK,
       sym_equality_operator, anon_sym_LT_EQ, anon_sym_GT_EQ, anon_sym_CARET, anon_sym_LT_LT,
       anon_sym_GT_GT_GT, sym__additive_operator, anon_sym_STAR, anon_sym_PERCENT,
       anon_sym_TILDE_SLASH, anon_sym_is, anon_sym_DOT_DOT, anon_sym_QMARK_DOT_DOT,
       anon_sym_SEMI, anon_sym_EQ_GT, anon_sym_async_STAR, anon_sym_sync_STAR, anon_sym_Function,
       anon_sym_AMP_AMP, anon_sym_PIPE_PIPE])])]"

lemma small_run_341: "small_run 1022 46652 ts_small_parse_table_341 1024 46779"
  by (simp add: small_simps ts_small_parse_table_341_def)

definition ts_small_parse_table_342 :: "small_group list" where
  "ts_small_parse_table_342 = [
     (46779, 8, [(ACTIONS 3, 1, [anon_sym_SLASH_SLASH]), (ACTIONS 5, 1, [anon_sym_SLASH_STAR]),
       (ACTIONS 7, 1, [anon_sym_SLASH_SLASH_SLASH]), (ACTIONS 9, 1, [sym__block_comment]),
       (ACTIONS 11, 1, [sym__documentation_block_comment]), (STATE 1024, 2, [sym_comment,
       sym_documentation_comment]), (ACTIONS 2680, 12, [anon_sym_QMARK, anon_sym_LT, anon_sym_GT,
       anon_sym_PIPE, anon_sym_AMP, anon_sym_GT_GT, anon_sym_SLASH, anon_sym_BANG, anon_sym_as,
       anon_sym_DOT, anon_sym_QMARK_DOT, anon_sym_async]), (ACTIONS 2678, 25, [anon_sym_LBRACE,
       anon_sym_LBRACK, anon_sym_COMMA, anon_sym_LPAREN, anon_sym_QMARK_QMARK,
       sym_equality_operator, anon_sym_LT_EQ, anon_sym_GT_EQ, anon_sym_CARET, anon_sym_LT_LT,
       anon_sym_GT_GT_GT, sym__additive_operator, anon_sym_STAR, anon_sym_PERCENT,
       anon_sym_TILDE_SLASH, anon_sym_is, anon_sym_DOT_DOT, anon_sym_QMARK_DOT_DOT,
       anon_sym_SEMI, anon_sym_EQ_GT, anon_sym_async_STAR, anon_sym_sync_STAR, anon_sym_Function,
       anon_sym_AMP_AMP, anon_sym_PIPE_PIPE])]),
     (46840, 9, [(ACTIONS 3, 1, [anon_sym_SLASH_SLASH]), (ACTIONS 5, 1, [anon_sym_SLASH_STAR]),
       (ACTIONS 7, 1, [anon_sym_SLASH_SLASH_SLASH]), (ACTIONS 9, 1, [sym__block_comment]),
       (ACTIONS 11, 1, [sym__documentation_block_comment]), (ACTIONS 3116, 1, [anon_sym_CARET]),
       (STATE 1025, 3, [sym_comment, sym_documentation_comment,
       aux_sym_bitwise_xor_expression_repeat1]), (ACTIONS 1397, 12, [anon_sym_QMARK, anon_sym_LT,
       anon_sym_GT, anon_sym_PIPE, anon_sym_AMP, anon_sym_GT_GT, anon_sym_SLASH, anon_sym_BANG,
       anon_sym_as, anon_sym_DOT, anon_sym_QMARK_DOT, anon_sym_async]), (ACTIONS 1395, 23,
       [anon_sym_LBRACE, anon_sym_LBRACK, anon_sym_COMMA, anon_sym_LPAREN, anon_sym_QMARK_QMARK,
       sym_equality_operator, anon_sym_LT_EQ, anon_sym_GT_EQ, anon_sym_LT_LT, anon_sym_GT_GT_GT,
       sym__additive_operator, anon_sym_STAR, anon_sym_PERCENT, anon_sym_TILDE_SLASH,
       anon_sym_is, anon_sym_DOT_DOT, anon_sym_QMARK_DOT_DOT, anon_sym_SEMI, anon_sym_EQ_GT,
       anon_sym_async_STAR, anon_sym_sync_STAR, anon_sym_AMP_AMP, anon_sym_PIPE_PIPE])])]"

lemma small_run_342: "small_run 1024 46779 ts_small_parse_table_342 1026 46903"
  by (simp add: small_simps ts_small_parse_table_342_def)

definition ts_small_parse_table_343 :: "small_group list" where
  "ts_small_parse_table_343 = [
     (46903, 8, [(ACTIONS 3, 1, [anon_sym_SLASH_SLASH]), (ACTIONS 5, 1, [anon_sym_SLASH_STAR]),
       (ACTIONS 7, 1, [anon_sym_SLASH_SLASH_SLASH]), (ACTIONS 9, 1, [sym__block_comment]),
       (ACTIONS 11, 1, [sym__documentation_block_comment]), (STATE 1026, 2, [sym_comment,
       sym_documentation_comment]), (ACTIONS 2487, 12, [anon_sym_QMARK, anon_sym_LT, anon_sym_GT,
       anon_sym_PIPE, anon_sym_AMP, anon_sym_GT_GT, anon_sym_SLASH, anon_sym_BANG, anon_sym_as,
       anon_sym_DOT, anon_sym_QMARK_DOT, anon_sym_async]), (ACTIONS 2479, 25, [anon_sym_LBRACE,
       anon_sym_LBRACK, anon_sym_COMMA, anon_sym_LPAREN, anon_sym_QMARK_QMARK,
       sym_equality_operator, anon_sym_LT_EQ, anon_sym_GT_EQ, anon_sym_CARET, anon_sym_LT_LT,
       anon_sym_GT_GT_GT, sym__additive_operator, anon_sym_STAR, anon_sym_PERCENT,
       anon_sym_TILDE_SLASH, anon_sym_is, anon_sym_DOT_DOT, anon_sym_QMARK_DOT_DOT,
       anon_sym_SEMI, anon_sym_EQ_GT, anon_sym_async_STAR, anon_sym_sync_STAR, anon_sym_Function,
       anon_sym_AMP_AMP, anon_sym_PIPE_PIPE])]),
     (46964, 9, [(ACTIONS 3, 1, [anon_sym_SLASH_SLASH]), (ACTIONS 5, 1, [anon_sym_SLASH_STAR]),
       (ACTIONS 7, 1, [anon_sym_SLASH_SLASH_SLASH]), (ACTIONS 9, 1, [sym__block_comment]),
       (ACTIONS 11, 1, [sym__documentation_block_comment]), (ACTIONS 1701, 1,
       [sym_increment_operator]), (STATE 1027, 2, [sym_comment, sym_documentation_comment]),
       (ACTIONS 1686, 13, [anon_sym_QMARK, anon_sym_LT, anon_sym_GT, anon_sym_PIPE, anon_sym_AMP,
       anon_sym_GT_GT, sym__additive_operator, anon_sym_SLASH, anon_sym_BANG, anon_sym_as,
       anon_sym_DOT, anon_sym_QMARK_DOT, anon_sym_async]), (ACTIONS 1680, 23, [anon_sym_LBRACE,
       anon_sym_LBRACK, anon_sym_COMMA, anon_sym_LPAREN, anon_sym_QMARK_QMARK,
       sym_equality_operator, anon_sym_LT_EQ, anon_sym_GT_EQ, anon_sym_CARET, anon_sym_LT_LT,
       anon_sym_GT_GT_GT, anon_sym_STAR, anon_sym_PERCENT, anon_sym_TILDE_SLASH, anon_sym_is,
       anon_sym_DOT_DOT, anon_sym_QMARK_DOT_DOT, anon_sym_SEMI, anon_sym_EQ_GT,
       anon_sym_async_STAR, anon_sym_sync_STAR, anon_sym_AMP_AMP, anon_sym_PIPE_PIPE])])]"

lemma small_run_343: "small_run 1026 46903 ts_small_parse_table_343 1028 47027"
  by (simp add: small_simps ts_small_parse_table_343_def)

definition ts_small_parse_table_344 :: "small_group list" where
  "ts_small_parse_table_344 = [
     (47027, 9, [(ACTIONS 3, 1, [anon_sym_SLASH_SLASH]), (ACTIONS 5, 1, [anon_sym_SLASH_STAR]),
       (ACTIONS 7, 1, [anon_sym_SLASH_SLASH_SLASH]), (ACTIONS 9, 1, [sym__block_comment]),
       (ACTIONS 11, 1, [sym__documentation_block_comment]), (ACTIONS 1676, 1,
       [sym_increment_operator]), (STATE 1028, 2, [sym_comment, sym_documentation_comment]),
       (ACTIONS 1678, 13, [anon_sym_QMARK, anon_sym_LT, anon_sym_GT, anon_sym_PIPE, anon_sym_AMP,
       anon_sym_GT_GT, sym__additive_operator, anon_sym_SLASH, anon_sym_BANG, anon_sym_as,
       anon_sym_DOT, anon_sym_QMARK_DOT, anon_sym_async]), (ACTIONS 1672, 23, [anon_sym_LBRACE,
       anon_sym_LBRACK, anon_sym_COMMA, anon_sym_LPAREN, anon_sym_QMARK_QMARK,
       sym_equality_operator, anon_sym_LT_EQ, anon_sym_GT_EQ, anon_sym_CARET, anon_sym_LT_LT,
       anon_sym_GT_GT_GT, anon_sym_STAR, anon_sym_PERCENT, anon_sym_TILDE_SLASH, anon_sym_is,
       anon_sym_DOT_DOT, anon_sym_QMARK_DOT_DOT, anon_sym_SEMI, anon_sym_EQ_GT,
       anon_sym_async_STAR, anon_sym_sync_STAR, anon_sym_AMP_AMP, anon_sym_PIPE_PIPE])]),
     (47090, 8, [(ACTIONS 3, 1, [anon_sym_SLASH_SLASH]), (ACTIONS 5, 1, [anon_sym_SLASH_STAR]),
       (ACTIONS 7, 1, [anon_sym_SLASH_SLASH_SLASH]), (ACTIONS 9, 1, [sym__block_comment]),
       (ACTIONS 11, 1, [sym__documentation_block_comment]), (STATE 1029, 2, [sym_comment,
       sym_documentation_comment]), (ACTIONS 2770, 12, [anon_sym_QMARK, anon_sym_LT, anon_sym_GT,
       anon_sym_PIPE, anon_sym_AMP, anon_sym_GT_GT, anon_sym_SLASH, anon_sym_BANG, anon_sym_as,
       anon_sym_DOT, anon_sym_QMARK_DOT, anon_sym_async]), (ACTIONS 2768, 25, [anon_sym_LBRACE,
       anon_sym_LBRACK, anon_sym_COMMA, anon_sym_LPAREN, anon_sym_QMARK_QMARK,
       sym_equality_operator, anon_sym_LT_EQ, anon_sym_GT_EQ, anon_sym_CARET, anon_sym_LT_LT,
       anon_sym_GT_GT_GT, sym__additive_operator, anon_sym_STAR, anon_sym_PERCENT,
       anon_sym_TILDE_SLASH, anon_sym_is, anon_sym_DOT_DOT, anon_sym_QMARK_DOT_DOT,
       anon_sym_SEMI, anon_sym_EQ_GT, anon_sym_async_STAR, anon_sym_sync_STAR, anon_sym_Function,
       anon_sym_AMP_AMP, anon_sym_PIPE_PIPE])])]"

lemma small_run_344: "small_run 1028 47027 ts_small_parse_table_344 1030 47151"
  by (simp add: small_simps ts_small_parse_table_344_def)

definition ts_small_parse_table_345 :: "small_group list" where
  "ts_small_parse_table_345 = [
     (47151, 9, [(ACTIONS 3, 1, [anon_sym_SLASH_SLASH]), (ACTIONS 5, 1, [anon_sym_SLASH_STAR]),
       (ACTIONS 7, 1, [anon_sym_SLASH_SLASH_SLASH]), (ACTIONS 9, 1, [sym__block_comment]),
       (ACTIONS 11, 1, [sym__documentation_block_comment]), (ACTIONS 1684, 1,
       [sym_increment_operator]), (STATE 1030, 2, [sym_comment, sym_documentation_comment]),
       (ACTIONS 1686, 13, [anon_sym_QMARK, anon_sym_LT, anon_sym_GT, anon_sym_PIPE, anon_sym_AMP,
       anon_sym_GT_GT, sym__additive_operator, anon_sym_SLASH, anon_sym_BANG, anon_sym_as,
       anon_sym_DOT, anon_sym_QMARK_DOT, anon_sym_async]), (ACTIONS 1680, 23, [anon_sym_LBRACE,
       anon_sym_LBRACK, anon_sym_COMMA, anon_sym_LPAREN, anon_sym_QMARK_QMARK,
       sym_equality_operator, anon_sym_LT_EQ, anon_sym_GT_EQ, anon_sym_CARET, anon_sym_LT_LT,
       anon_sym_GT_GT_GT, anon_sym_STAR, anon_sym_PERCENT, anon_sym_TILDE_SLASH, anon_sym_is,
       anon_sym_DOT_DOT, anon_sym_QMARK_DOT_DOT, anon_sym_SEMI, anon_sym_EQ_GT,
       anon_sym_async_STAR, anon_sym_sync_STAR, anon_sym_AMP_AMP, anon_sym_PIPE_PIPE])]),
     (47214, 8, [(ACTIONS 3, 1, [anon_sym_SLASH_SLASH]), (ACTIONS 5, 1, [anon_sym_SLASH_STAR]),
       (ACTIONS 7, 1, [anon_sym_SLASH_SLASH_SLASH]), (ACTIONS 9, 1, [sym__block_comment]),
       (ACTIONS 11, 1, [sym__documentation_block_comment]), (STATE 1031, 2, [sym_comment,
       sym_documentation_comment]), (ACTIONS 2743, 12, [anon_sym_QMARK, anon_sym_LT, anon_sym_GT,
       anon_sym_PIPE, anon_sym_AMP, anon_sym_GT_GT, anon_sym_SLASH, anon_sym_BANG, anon_sym_as,
       anon_sym_DOT, anon_sym_QMARK_DOT, anon_sym_async]), (ACTIONS 2741, 25, [anon_sym_LBRACE,
       anon_sym_LBRACK, anon_sym_COMMA, anon_sym_LPAREN, anon_sym_QMARK_QMARK,
       sym_equality_operator, anon_sym_LT_EQ, anon_sym_GT_EQ, anon_sym_CARET, anon_sym_LT_LT,
       anon_sym_GT_GT_GT, sym__additive_operator, anon_sym_STAR, anon_sym_PERCENT,
       anon_sym_TILDE_SLASH, anon_sym_is, anon_sym_DOT_DOT, anon_sym_QMARK_DOT_DOT,
       anon_sym_SEMI, anon_sym_EQ_GT, anon_sym_async_STAR, anon_sym_sync_STAR, anon_sym_Function,
       anon_sym_AMP_AMP, anon_sym_PIPE_PIPE])])]"

lemma small_run_345: "small_run 1030 47151 ts_small_parse_table_345 1032 47275"
  by (simp add: small_simps ts_small_parse_table_345_def)

definition ts_small_parse_table_346 :: "small_group list" where
  "ts_small_parse_table_346 = [
     (47275, 8, [(ACTIONS 3, 1, [anon_sym_SLASH_SLASH]), (ACTIONS 5, 1, [anon_sym_SLASH_STAR]),
       (ACTIONS 7, 1, [anon_sym_SLASH_SLASH_SLASH]), (ACTIONS 9, 1, [sym__block_comment]),
       (ACTIONS 11, 1, [sym__documentation_block_comment]), (STATE 1032, 2, [sym_comment,
       sym_documentation_comment]), (ACTIONS 2805, 12, [anon_sym_QMARK, anon_sym_LT, anon_sym_GT,
       anon_sym_PIPE, anon_sym_AMP, anon_sym_GT_GT, anon_sym_SLASH, anon_sym_BANG, anon_sym_as,
       anon_sym_DOT, anon_sym_QMARK_DOT, anon_sym_async]), (ACTIONS 2803, 25, [anon_sym_LBRACE,
       anon_sym_LBRACK, anon_sym_COMMA, anon_sym_LPAREN, anon_sym_QMARK_QMARK,
       sym_equality_operator, anon_sym_LT_EQ, anon_sym_GT_EQ, anon_sym_CARET, anon_sym_LT_LT,
       anon_sym_GT_GT_GT, sym__additive_operator, anon_sym_STAR, anon_sym_PERCENT,
       anon_sym_TILDE_SLASH, anon_sym_is, anon_sym_DOT_DOT, anon_sym_QMARK_DOT_DOT,
       anon_sym_SEMI, anon_sym_EQ_GT, anon_sym_async_STAR, anon_sym_sync_STAR, anon_sym_Function,
       anon_sym_AMP_AMP, anon_sym_PIPE_PIPE])]),
     (47336, 9, [(ACTIONS 3, 1, [anon_sym_SLASH_SLASH]), (ACTIONS 5, 1, [anon_sym_SLASH_STAR]),
       (ACTIONS 7, 1, [anon_sym_SLASH_SLASH_SLASH]), (ACTIONS 9, 1, [sym__block_comment]),
       (ACTIONS 11, 1, [sym__documentation_block_comment]), (ACTIONS 3119, 1, [anon_sym_PIPE]),
       (STATE 1033, 3, [sym_comment, sym_documentation_comment,
       aux_sym_bitwise_or_expression_repeat1]), (ACTIONS 1420, 11, [anon_sym_QMARK, anon_sym_LT,
       anon_sym_GT, anon_sym_AMP, anon_sym_GT_GT, anon_sym_SLASH, anon_sym_BANG, anon_sym_as,
       anon_sym_DOT, anon_sym_QMARK_DOT, anon_sym_async]), (ACTIONS 1418, 24, [anon_sym_LBRACE,
       anon_sym_LBRACK, anon_sym_COMMA, anon_sym_LPAREN, anon_sym_QMARK_QMARK,
       sym_equality_operator, anon_sym_LT_EQ, anon_sym_GT_EQ, anon_sym_CARET, anon_sym_LT_LT,
       anon_sym_GT_GT_GT, sym__additive_operator, anon_sym_STAR, anon_sym_PERCENT,
       anon_sym_TILDE_SLASH, anon_sym_is, anon_sym_DOT_DOT, anon_sym_QMARK_DOT_DOT,
       anon_sym_SEMI, anon_sym_EQ_GT, anon_sym_async_STAR, anon_sym_sync_STAR, anon_sym_AMP_AMP,
       anon_sym_PIPE_PIPE])])]"

lemma small_run_346: "small_run 1032 47275 ts_small_parse_table_346 1034 47399"
  by (simp add: small_simps ts_small_parse_table_346_def)

definition ts_small_parse_table_347 :: "small_group list" where
  "ts_small_parse_table_347 = [
     (47399, 8, [(ACTIONS 3, 1, [anon_sym_SLASH_SLASH]), (ACTIONS 5, 1, [anon_sym_SLASH_STAR]),
       (ACTIONS 7, 1, [anon_sym_SLASH_SLASH_SLASH]), (ACTIONS 9, 1, [sym__block_comment]),
       (ACTIONS 11, 1, [sym__documentation_block_comment]), (STATE 1034, 2, [sym_comment,
       sym_documentation_comment]), (ACTIONS 1645, 13, [anon_sym_QMARK, anon_sym_LT, anon_sym_GT,
       anon_sym_PIPE, anon_sym_AMP, anon_sym_GT_GT, sym__additive_operator, anon_sym_SLASH,
       anon_sym_BANG, anon_sym_as, anon_sym_DOT, anon_sym_QMARK_DOT, anon_sym_async]), (ACTIONS
       1643, 24, [anon_sym_LBRACE, anon_sym_LBRACK, anon_sym_COMMA, anon_sym_LPAREN,
       anon_sym_QMARK_QMARK, sym_equality_operator, anon_sym_LT_EQ, anon_sym_GT_EQ,
       anon_sym_CARET, anon_sym_LT_LT, anon_sym_GT_GT_GT, anon_sym_STAR, anon_sym_PERCENT,
       anon_sym_TILDE_SLASH, sym_increment_operator, anon_sym_is, anon_sym_DOT_DOT,
       anon_sym_QMARK_DOT_DOT, anon_sym_SEMI, anon_sym_EQ_GT, anon_sym_async_STAR,
       anon_sym_sync_STAR, anon_sym_AMP_AMP, anon_sym_PIPE_PIPE])]),
     (47460, 9, [(ACTIONS 3, 1, [anon_sym_SLASH_SLASH]), (ACTIONS 5, 1, [anon_sym_SLASH_STAR]),
       (ACTIONS 7, 1, [anon_sym_SLASH_SLASH_SLASH]), (ACTIONS 9, 1, [sym__block_comment]),
       (ACTIONS 11, 1, [sym__documentation_block_comment]), (ACTIONS 2548, 1,
       [anon_sym_Function]), (STATE 1035, 2, [sym_comment, sym_documentation_comment]), (ACTIONS
       2546, 12, [anon_sym_QMARK, anon_sym_LT, anon_sym_GT, anon_sym_PIPE, anon_sym_AMP,
       anon_sym_GT_GT, anon_sym_SLASH, anon_sym_BANG, anon_sym_as, anon_sym_DOT,
       anon_sym_QMARK_DOT, anon_sym_async]), (ACTIONS 2541, 24, [anon_sym_LBRACE,
       anon_sym_LBRACK, anon_sym_COMMA, anon_sym_LPAREN, anon_sym_QMARK_QMARK,
       sym_equality_operator, anon_sym_LT_EQ, anon_sym_GT_EQ, anon_sym_CARET, anon_sym_LT_LT,
       anon_sym_GT_GT_GT, sym__additive_operator, anon_sym_STAR, anon_sym_PERCENT,
       anon_sym_TILDE_SLASH, anon_sym_is, anon_sym_DOT_DOT, anon_sym_QMARK_DOT_DOT,
       anon_sym_SEMI, anon_sym_EQ_GT, anon_sym_async_STAR, anon_sym_sync_STAR, anon_sym_AMP_AMP,
       anon_sym_PIPE_PIPE])])]"

lemma small_run_347: "small_run 1034 47399 ts_small_parse_table_347 1036 47523"
  by (simp add: small_simps ts_small_parse_table_347_def)

definition ts_small_parse_table_348 :: "small_group list" where
  "ts_small_parse_table_348 = [
     (47523, 8, [(ACTIONS 3, 1, [anon_sym_SLASH_SLASH]), (ACTIONS 5, 1, [anon_sym_SLASH_STAR]),
       (ACTIONS 7, 1, [anon_sym_SLASH_SLASH_SLASH]), (ACTIONS 9, 1, [sym__block_comment]),
       (ACTIONS 11, 1, [sym__documentation_block_comment]), (STATE 1036, 2, [sym_comment,
       sym_documentation_comment]), (ACTIONS 1670, 13, [anon_sym_QMARK, anon_sym_LT, anon_sym_GT,
       anon_sym_PIPE, anon_sym_AMP, anon_sym_GT_GT, sym__additive_operator, anon_sym_SLASH,
       anon_sym_BANG, anon_sym_as, anon_sym_DOT, anon_sym_QMARK_DOT, anon_sym_async]), (ACTIONS
       1668, 24, [anon_sym_LBRACE, anon_sym_LBRACK, anon_sym_COMMA, anon_sym_LPAREN,
       anon_sym_QMARK_QMARK, sym_equality_operator, anon_sym_LT_EQ, anon_sym_GT_EQ,
       anon_sym_CARET, anon_sym_LT_LT, anon_sym_GT_GT_GT, anon_sym_STAR, anon_sym_PERCENT,
       anon_sym_TILDE_SLASH, sym_increment_operator, anon_sym_is, anon_sym_DOT_DOT,
       anon_sym_QMARK_DOT_DOT, anon_sym_SEMI, anon_sym_EQ_GT, anon_sym_async_STAR,
       anon_sym_sync_STAR, anon_sym_AMP_AMP, anon_sym_PIPE_PIPE])]),
     (47584, 9, [(ACTIONS 3, 1, [anon_sym_SLASH_SLASH]), (ACTIONS 5, 1, [anon_sym_SLASH_STAR]),
       (ACTIONS 7, 1, [anon_sym_SLASH_SLASH_SLASH]), (ACTIONS 9, 1, [sym__block_comment]),
       (ACTIONS 11, 1, [sym__documentation_block_comment]), (ACTIONS 2766, 1,
       [anon_sym_Function]), (STATE 1037, 2, [sym_comment, sym_documentation_comment]), (ACTIONS
       2764, 12, [anon_sym_QMARK, anon_sym_LT, anon_sym_GT, anon_sym_PIPE, anon_sym_AMP,
       anon_sym_GT_GT, anon_sym_SLASH, anon_sym_BANG, anon_sym_as, anon_sym_DOT,
       anon_sym_QMARK_DOT, anon_sym_async]), (ACTIONS 2762, 24, [anon_sym_LBRACE,
       anon_sym_LBRACK, anon_sym_COMMA, anon_sym_LPAREN, anon_sym_QMARK_QMARK,
       sym_equality_operator, anon_sym_LT_EQ, anon_sym_GT_EQ, anon_sym_CARET, anon_sym_LT_LT,
       anon_sym_GT_GT_GT, sym__additive_operator, anon_sym_STAR, anon_sym_PERCENT,
       anon_sym_TILDE_SLASH, anon_sym_is, anon_sym_DOT_DOT, anon_sym_QMARK_DOT_DOT,
       anon_sym_SEMI, anon_sym_EQ_GT, anon_sym_async_STAR, anon_sym_sync_STAR, anon_sym_AMP_AMP,
       anon_sym_PIPE_PIPE])])]"

lemma small_run_348: "small_run 1036 47523 ts_small_parse_table_348 1038 47647"
  by (simp add: small_simps ts_small_parse_table_348_def)

definition ts_small_parse_table_349 :: "small_group list" where
  "ts_small_parse_table_349 = [
     (47647, 8, [(ACTIONS 3, 1, [anon_sym_SLASH_SLASH]), (ACTIONS 5, 1, [anon_sym_SLASH_STAR]),
       (ACTIONS 7, 1, [anon_sym_SLASH_SLASH_SLASH]), (ACTIONS 9, 1, [sym__block_comment]),
       (ACTIONS 11, 1, [sym__documentation_block_comment]), (STATE 1038, 2, [sym_comment,
       sym_documentation_comment]), (ACTIONS 2624, 12, [anon_sym_QMARK, anon_sym_LT, anon_sym_GT,
       anon_sym_PIPE, anon_sym_AMP, anon_sym_GT_GT, anon_sym_SLASH, anon_sym_BANG, anon_sym_as,
       anon_sym_DOT, anon_sym_QMARK_DOT, anon_sym_async]), (ACTIONS 2622, 25, [anon_sym_LBRACE,
       anon_sym_LBRACK, anon_sym_COMMA, anon_sym_LPAREN, anon_sym_QMARK_QMARK,
       sym_equality_operator, anon_sym_LT_EQ, anon_sym_GT_EQ, anon_sym_CARET, anon_sym_LT_LT,
       anon_sym_GT_GT_GT, sym__additive_operator, anon_sym_STAR, anon_sym_PERCENT,
       anon_sym_TILDE_SLASH, anon_sym_is, anon_sym_DOT_DOT, anon_sym_QMARK_DOT_DOT,
       anon_sym_SEMI, anon_sym_EQ_GT, anon_sym_async_STAR, anon_sym_sync_STAR, anon_sym_Function,
       anon_sym_AMP_AMP, anon_sym_PIPE_PIPE])]),
     (47708, 10, [(ACTIONS 3, 1, [anon_sym_SLASH_SLASH]), (ACTIONS 5, 1,
       [anon_sym_SLASH_STAR]), (ACTIONS 7, 1, [anon_sym_SLASH_SLASH_SLASH]), (ACTIONS 9, 1,
       [sym__block_comment]), (ACTIONS 11, 1, [sym__documentation_block_comment]), (ACTIONS 3110,
       1, [anon_sym_QMARK]), (STATE 1137, 1, [sym_nullable_type]), (STATE 1039, 2, [sym_comment,
       sym_documentation_comment]), (ACTIONS 2546, 11, [anon_sym_LT, anon_sym_GT, anon_sym_PIPE,
       anon_sym_AMP, anon_sym_GT_GT, anon_sym_SLASH, anon_sym_BANG, anon_sym_as, anon_sym_DOT,
       anon_sym_QMARK_DOT, anon_sym_async]), (ACTIONS 2541, 24, [anon_sym_LBRACE,
       anon_sym_LBRACK, anon_sym_COMMA, anon_sym_LPAREN, anon_sym_QMARK_QMARK,
       sym_equality_operator, anon_sym_LT_EQ, anon_sym_GT_EQ, anon_sym_CARET, anon_sym_LT_LT,
       anon_sym_GT_GT_GT, sym__additive_operator, anon_sym_STAR, anon_sym_PERCENT,
       anon_sym_TILDE_SLASH, anon_sym_is, anon_sym_DOT_DOT, anon_sym_QMARK_DOT_DOT,
       anon_sym_SEMI, anon_sym_EQ_GT, anon_sym_async_STAR, anon_sym_sync_STAR, anon_sym_AMP_AMP,
       anon_sym_PIPE_PIPE])])]"

lemma small_run_349: "small_run 1038 47647 ts_small_parse_table_349 1040 47773"
  by (simp add: small_simps ts_small_parse_table_349_def)

definition ts_small_parse_table_350 :: "small_group list" where
  "ts_small_parse_table_350 = [
     (47773, 8, [(ACTIONS 3, 1, [anon_sym_SLASH_SLASH]), (ACTIONS 5, 1, [anon_sym_SLASH_STAR]),
       (ACTIONS 7, 1, [anon_sym_SLASH_SLASH_SLASH]), (ACTIONS 9, 1, [sym__block_comment]),
       (ACTIONS 11, 1, [sym__documentation_block_comment]), (STATE 1040, 2, [sym_comment,
       sym_documentation_comment]), (ACTIONS 2778, 12, [anon_sym_QMARK, anon_sym_LT, anon_sym_GT,
       anon_sym_PIPE, anon_sym_AMP, anon_sym_GT_GT, anon_sym_SLASH, anon_sym_BANG, anon_sym_as,
       anon_sym_DOT, anon_sym_QMARK_DOT, anon_sym_async]), (ACTIONS 2776, 25, [anon_sym_LBRACE,
       anon_sym_LBRACK, anon_sym_COMMA, anon_sym_LPAREN, anon_sym_QMARK_QMARK,
       sym_equality_operator, anon_sym_LT_EQ, anon_sym_GT_EQ, anon_sym_CARET, anon_sym_LT_LT,
       anon_sym_GT_GT_GT, sym__additive_operator, anon_sym_STAR, anon_sym_PERCENT,
       anon_sym_TILDE_SLASH, anon_sym_is, anon_sym_DOT_DOT, anon_sym_QMARK_DOT_DOT,
       anon_sym_SEMI, anon_sym_EQ_GT, anon_sym_async_STAR, anon_sym_sync_STAR, anon_sym_Function,
       anon_sym_AMP_AMP, anon_sym_PIPE_PIPE])]),
     (47834, 8, [(ACTIONS 3, 1, [anon_sym_SLASH_SLASH]), (ACTIONS 5, 1, [anon_sym_SLASH_STAR]),
       (ACTIONS 7, 1, [anon_sym_SLASH_SLASH_SLASH]), (ACTIONS 9, 1, [sym__block_comment]),
       (ACTIONS 11, 1, [sym__documentation_block_comment]), (STATE 1041, 2, [sym_comment,
       sym_documentation_comment]), (ACTIONS 2718, 12, [anon_sym_QMARK, anon_sym_LT, anon_sym_GT,
       anon_sym_PIPE, anon_sym_AMP, anon_sym_GT_GT, anon_sym_SLASH, anon_sym_BANG, anon_sym_as,
       anon_sym_DOT, anon_sym_QMARK_DOT, anon_sym_async]), (ACTIONS 2716, 25, [anon_sym_LBRACE,
       anon_sym_LBRACK, anon_sym_COMMA, anon_sym_LPAREN, anon_sym_QMARK_QMARK,
       sym_equality_operator, anon_sym_LT_EQ, anon_sym_GT_EQ, anon_sym_CARET, anon_sym_LT_LT,
       anon_sym_GT_GT_GT, sym__additive_operator, anon_sym_STAR, anon_sym_PERCENT,
       anon_sym_TILDE_SLASH, anon_sym_is, anon_sym_DOT_DOT, anon_sym_QMARK_DOT_DOT,
       anon_sym_SEMI, anon_sym_EQ_GT, anon_sym_async_STAR, anon_sym_sync_STAR, anon_sym_Function,
       anon_sym_AMP_AMP, anon_sym_PIPE_PIPE])])]"

lemma small_run_350: "small_run 1040 47773 ts_small_parse_table_350 1042 47895"
  by (simp add: small_simps ts_small_parse_table_350_def)

definition ts_small_parse_table_351 :: "small_group list" where
  "ts_small_parse_table_351 = [
     (47895, 8, [(ACTIONS 3, 1, [anon_sym_SLASH_SLASH]), (ACTIONS 5, 1, [anon_sym_SLASH_STAR]),
       (ACTIONS 7, 1, [anon_sym_SLASH_SLASH_SLASH]), (ACTIONS 9, 1, [sym__block_comment]),
       (ACTIONS 11, 1, [sym__documentation_block_comment]), (STATE 1042, 2, [sym_comment,
       sym_documentation_comment]), (ACTIONS 2774, 12, [anon_sym_QMARK, anon_sym_LT, anon_sym_GT,
       anon_sym_PIPE, anon_sym_AMP, anon_sym_GT_GT, anon_sym_SLASH, anon_sym_BANG, anon_sym_as,
       anon_sym_DOT, anon_sym_QMARK_DOT, anon_sym_async]), (ACTIONS 2772, 25, [anon_sym_LBRACE,
       anon_sym_LBRACK, anon_sym_COMMA, anon_sym_LPAREN, anon_sym_QMARK_QMARK,
       sym_equality_operator, anon_sym_LT_EQ, anon_sym_GT_EQ, anon_sym_CARET, anon_sym_LT_LT,
       anon_sym_GT_GT_GT, sym__additive_operator, anon_sym_STAR, anon_sym_PERCENT,
       anon_sym_TILDE_SLASH, anon_sym_is, anon_sym_DOT_DOT, anon_sym_QMARK_DOT_DOT,
       anon_sym_SEMI, anon_sym_EQ_GT, anon_sym_async_STAR, anon_sym_sync_STAR, anon_sym_Function,
       anon_sym_AMP_AMP, anon_sym_PIPE_PIPE])]),
     (47956, 9, [(ACTIONS 3, 1, [anon_sym_SLASH_SLASH]), (ACTIONS 5, 1, [anon_sym_SLASH_STAR]),
       (ACTIONS 7, 1, [anon_sym_SLASH_SLASH_SLASH]), (ACTIONS 9, 1, [sym__block_comment]),
       (ACTIONS 11, 1, [sym__documentation_block_comment]), (ACTIONS 982, 1, [anon_sym_EQ]),
       (STATE 1043, 2, [sym_comment, sym_documentation_comment]), (ACTIONS 984, 12,
       [anon_sym_QMARK, anon_sym_LT, anon_sym_GT, anon_sym_PIPE, anon_sym_AMP, anon_sym_GT_GT,
       anon_sym_SLASH, anon_sym_BANG, anon_sym_as, anon_sym_DOT, anon_sym_QMARK_DOT,
       anon_sym_async]), (ACTIONS 980, 24, [anon_sym_LBRACE, anon_sym_LBRACK, anon_sym_COMMA,
       anon_sym_LPAREN, anon_sym_QMARK_QMARK, sym_equality_operator, anon_sym_LT_EQ,
       anon_sym_GT_EQ, anon_sym_CARET, anon_sym_LT_LT, anon_sym_GT_GT_GT, sym__additive_operator,
       anon_sym_STAR, anon_sym_PERCENT, anon_sym_TILDE_SLASH, anon_sym_is, anon_sym_DOT_DOT,
       anon_sym_QMARK_DOT_DOT, anon_sym_SEMI, anon_sym_EQ_GT, anon_sym_async_STAR,
       anon_sym_sync_STAR, anon_sym_AMP_AMP, anon_sym_PIPE_PIPE])])]"

lemma small_run_351: "small_run 1042 47895 ts_small_parse_table_351 1044 48019"
  by (simp add: small_simps ts_small_parse_table_351_def)

definition ts_small_parse_table_352 :: "small_group list" where
  "ts_small_parse_table_352 = [
     (48019, 13, [(ACTIONS 3, 1, [anon_sym_SLASH_SLASH]), (ACTIONS 5, 1,
       [anon_sym_SLASH_STAR]), (ACTIONS 7, 1, [anon_sym_SLASH_SLASH_SLASH]), (ACTIONS 9, 1,
       [sym__block_comment]), (ACTIONS 11, 1, [sym__documentation_block_comment]), (ACTIONS 2790,
       1, [anon_sym_LT]), (ACTIONS 2794, 1, [anon_sym_DOT]), (STATE 1612, 1,
       [sym__type_dot_identifier]), (ACTIONS 2784, 2, [anon_sym_LBRACK, anon_sym_LPAREN]), (STATE
       1044, 2, [sym_comment, sym_documentation_comment]), (ACTIONS 2787, 3, [anon_sym_QMARK,
       anon_sym_BANG, anon_sym_QMARK_DOT]), (ACTIONS 1328, 7, [anon_sym_GT, anon_sym_PIPE,
       anon_sym_AMP, anon_sym_GT_GT, anon_sym_SLASH, anon_sym_as, anon_sym_async]), (ACTIONS
       1330, 22, [anon_sym_LBRACE, anon_sym_COMMA, anon_sym_QMARK_QMARK, sym_equality_operator,
       anon_sym_LT_EQ, anon_sym_GT_EQ, anon_sym_CARET, anon_sym_LT_LT, anon_sym_GT_GT_GT,
       sym__additive_operator, anon_sym_STAR, anon_sym_PERCENT, anon_sym_TILDE_SLASH,
       anon_sym_is, anon_sym_DOT_DOT, anon_sym_QMARK_DOT_DOT, anon_sym_SEMI, anon_sym_EQ_GT,
       anon_sym_async_STAR, anon_sym_sync_STAR, anon_sym_AMP_AMP, anon_sym_PIPE_PIPE])]),
     (48090, 9, [(ACTIONS 3, 1, [anon_sym_SLASH_SLASH]), (ACTIONS 5, 1, [anon_sym_SLASH_STAR]),
       (ACTIONS 7, 1, [anon_sym_SLASH_SLASH_SLASH]), (ACTIONS 9, 1, [sym__block_comment]),
       (ACTIONS 11, 1, [sym__documentation_block_comment]), (ACTIONS 2659, 1, [anon_sym_EQ]),
       (STATE 1045, 2, [sym_comment, sym_documentation_comment]), (ACTIONS 2661, 12,
       [anon_sym_QMARK, anon_sym_LT, anon_sym_GT, anon_sym_PIPE, anon_sym_AMP, anon_sym_GT_GT,
       anon_sym_SLASH, anon_sym_BANG, anon_sym_as, anon_sym_DOT, anon_sym_QMARK_DOT,
       anon_sym_async]), (ACTIONS 2657, 24, [anon_sym_LBRACE, anon_sym_LBRACK, anon_sym_COMMA,
       anon_sym_LPAREN, anon_sym_QMARK_QMARK, sym_equality_operator, anon_sym_LT_EQ,
       anon_sym_GT_EQ, anon_sym_CARET, anon_sym_LT_LT, anon_sym_GT_GT_GT, sym__additive_operator,
       anon_sym_STAR, anon_sym_PERCENT, anon_sym_TILDE_SLASH, anon_sym_is, anon_sym_DOT_DOT,
       anon_sym_QMARK_DOT_DOT, anon_sym_SEMI, anon_sym_EQ_GT, anon_sym_async_STAR,
       anon_sym_sync_STAR, anon_sym_AMP_AMP, anon_sym_PIPE_PIPE])])]"

lemma small_run_352: "small_run 1044 48019 ts_small_parse_table_352 1046 48153"
  by (simp add: small_simps ts_small_parse_table_352_def)

definition ts_small_parse_table_353 :: "small_group list" where
  "ts_small_parse_table_353 = [
     (48153, 9, [(ACTIONS 3, 1, [anon_sym_SLASH_SLASH]), (ACTIONS 5, 1, [anon_sym_SLASH_STAR]),
       (ACTIONS 7, 1, [anon_sym_SLASH_SLASH_SLASH]), (ACTIONS 9, 1, [sym__block_comment]),
       (ACTIONS 11, 1, [sym__documentation_block_comment]), (ACTIONS 2674, 1, [anon_sym_EQ]),
       (STATE 1046, 2, [sym_comment, sym_documentation_comment]), (ACTIONS 2676, 12,
       [anon_sym_QMARK, anon_sym_LT, anon_sym_GT, anon_sym_PIPE, anon_sym_AMP, anon_sym_GT_GT,
       anon_sym_SLASH, anon_sym_BANG, anon_sym_as, anon_sym_DOT, anon_sym_QMARK_DOT,
       anon_sym_async]), (ACTIONS 2672, 24, [anon_sym_LBRACE, anon_sym_LBRACK, anon_sym_COMMA,
       anon_sym_LPAREN, anon_sym_QMARK_QMARK, sym_equality_operator, anon_sym_LT_EQ,
       anon_sym_GT_EQ, anon_sym_CARET, anon_sym_LT_LT, anon_sym_GT_GT_GT, sym__additive_operator,
       anon_sym_STAR, anon_sym_PERCENT, anon_sym_TILDE_SLASH, anon_sym_is, anon_sym_DOT_DOT,
       anon_sym_QMARK_DOT_DOT, anon_sym_SEMI, anon_sym_EQ_GT, anon_sym_async_STAR,
       anon_sym_sync_STAR, anon_sym_AMP_AMP, anon_sym_PIPE_PIPE])]),
     (48216, 9, [(ACTIONS 3, 1, [anon_sym_SLASH_SLASH]), (ACTIONS 5, 1, [anon_sym_SLASH_STAR]),
       (ACTIONS 7, 1, [anon_sym_SLASH_SLASH_SLASH]), (ACTIONS 9, 1, [sym__block_comment]),
       (ACTIONS 11, 1, [sym__documentation_block_comment]), (ACTIONS 3122, 1,
       [anon_sym_QMARK_QMARK]), (STATE 1047, 3, [aux_sym__if_null_expression, sym_comment,
       sym_documentation_comment]), (ACTIONS 2812, 12, [anon_sym_QMARK, anon_sym_LT, anon_sym_GT,
       anon_sym_PIPE, anon_sym_AMP, anon_sym_GT_GT, anon_sym_SLASH, anon_sym_BANG, anon_sym_as,
       anon_sym_DOT, anon_sym_QMARK_DOT, anon_sym_async]), (ACTIONS 2807, 23, [anon_sym_LBRACE,
       anon_sym_LBRACK, anon_sym_COMMA, anon_sym_LPAREN, sym_equality_operator, anon_sym_LT_EQ,
       anon_sym_GT_EQ, anon_sym_CARET, anon_sym_LT_LT, anon_sym_GT_GT_GT, sym__additive_operator,
       anon_sym_STAR, anon_sym_PERCENT, anon_sym_TILDE_SLASH, anon_sym_is, anon_sym_DOT_DOT,
       anon_sym_QMARK_DOT_DOT, anon_sym_SEMI, anon_sym_EQ_GT, anon_sym_async_STAR,
       anon_sym_sync_STAR, anon_sym_AMP_AMP, anon_sym_PIPE_PIPE])])]"

lemma small_run_353: "small_run 1046 48153 ts_small_parse_table_353 1048 48279"
  by (simp add: small_simps ts_small_parse_table_353_def)

definition ts_small_parse_table_354 :: "small_group list" where
  "ts_small_parse_table_354 = [
     (48279, 8, [(ACTIONS 3, 1, [anon_sym_SLASH_SLASH]), (ACTIONS 5, 1, [anon_sym_SLASH_STAR]),
       (ACTIONS 7, 1, [anon_sym_SLASH_SLASH_SLASH]), (ACTIONS 9, 1, [sym__block_comment]),
       (ACTIONS 11, 1, [sym__documentation_block_comment]), (STATE 1048, 2, [sym_comment,
       sym_documentation_comment]), (ACTIONS 2739, 12, [anon_sym_QMARK, anon_sym_LT, anon_sym_GT,
       anon_sym_PIPE, anon_sym_AMP, anon_sym_GT_GT, anon_sym_SLASH, anon_sym_BANG, anon_sym_as,
       anon_sym_DOT, anon_sym_QMARK_DOT, anon_sym_async]), (ACTIONS 2737, 25, [anon_sym_LBRACE,
       anon_sym_LBRACK, anon_sym_COMMA, anon_sym_LPAREN, anon_sym_QMARK_QMARK,
       sym_equality_operator, anon_sym_LT_EQ, anon_sym_GT_EQ, anon_sym_CARET, anon_sym_LT_LT,
       anon_sym_GT_GT_GT, sym__additive_operator, anon_sym_STAR, anon_sym_PERCENT,
       anon_sym_TILDE_SLASH, anon_sym_is, anon_sym_DOT_DOT, anon_sym_QMARK_DOT_DOT,
       anon_sym_SEMI, anon_sym_EQ_GT, anon_sym_async_STAR, anon_sym_sync_STAR, anon_sym_Function,
       anon_sym_AMP_AMP, anon_sym_PIPE_PIPE])]),
     (48340, 8, [(ACTIONS 3, 1, [anon_sym_SLASH_SLASH]), (ACTIONS 5, 1, [anon_sym_SLASH_STAR]),
       (ACTIONS 7, 1, [anon_sym_SLASH_SLASH_SLASH]), (ACTIONS 9, 1, [sym__block_comment]),
       (ACTIONS 11, 1, [sym__documentation_block_comment]), (STATE 1049, 2, [sym_comment,
       sym_documentation_comment]), (ACTIONS 2688, 12, [anon_sym_QMARK, anon_sym_LT, anon_sym_GT,
       anon_sym_PIPE, anon_sym_AMP, anon_sym_GT_GT, anon_sym_SLASH, anon_sym_BANG, anon_sym_as,
       anon_sym_DOT, anon_sym_QMARK_DOT, anon_sym_async]), (ACTIONS 2686, 25, [anon_sym_LBRACE,
       anon_sym_LBRACK, anon_sym_COMMA, anon_sym_LPAREN, anon_sym_QMARK_QMARK,
       sym_equality_operator, anon_sym_LT_EQ, anon_sym_GT_EQ, anon_sym_CARET, anon_sym_LT_LT,
       anon_sym_GT_GT_GT, sym__additive_operator, anon_sym_STAR, anon_sym_PERCENT,
       anon_sym_TILDE_SLASH, anon_sym_is, anon_sym_DOT_DOT, anon_sym_QMARK_DOT_DOT,
       anon_sym_SEMI, anon_sym_EQ_GT, anon_sym_async_STAR, anon_sym_sync_STAR, anon_sym_Function,
       anon_sym_AMP_AMP, anon_sym_PIPE_PIPE])])]"

lemma small_run_354: "small_run 1048 48279 ts_small_parse_table_354 1050 48401"
  by (simp add: small_simps ts_small_parse_table_354_def)

definition ts_small_parse_table_355 :: "small_group list" where
  "ts_small_parse_table_355 = [
     (48401, 19, [(ACTIONS 3, 1, [anon_sym_SLASH_SLASH]), (ACTIONS 5, 1,
       [anon_sym_SLASH_STAR]), (ACTIONS 7, 1, [anon_sym_SLASH_SLASH_SLASH]), (ACTIONS 9, 1,
       [sym__block_comment]), (ACTIONS 11, 1, [sym__documentation_block_comment]), (ACTIONS 3129,
       1, [anon_sym_AT]), (ACTIONS 3132, 1, [anon_sym_export]), (ACTIONS 3135, 1,
       [anon_sym_import]), (STATE 1454, 1, [aux_sym__metadata_repeat1]), (STATE 1571, 1,
       [sym_annotation]), (STATE 1572, 1, [sym_import_or_export]), (STATE 1581, 1,
       [sym_import_specification]), (STATE 1817, 1, [sym__import]), (STATE 1869, 1,
       [sym__export]), (STATE 2579, 1, [sym__metadata]), (STATE 1577, 2, [sym_library_import,
       sym_library_export]), (ACTIONS 3125, 3, [ts_builtin_sym_end, anon_sym_LPAREN,
       sym_part_of_builtin]), (STATE 1050, 3, [sym_comment, sym_documentation_comment,
       aux_sym_program_repeat1]), (ACTIONS 3127, 21, [anon_sym_part, anon_sym_enum,
       anon_sym_final, anon_sym_inline, anon_sym_class, anon_sym_extension, sym_void_type,
       anon_sym_var, anon_sym_Function, anon_sym_get, anon_sym_interface, anon_sym_base,
       anon_sym_abstract, anon_sym_sealed, anon_sym_mixin, anon_sym_set, anon_sym_typedef,
       sym_const_builtin, anon_sym_late, anon_sym_external, sym_identifier])]),
     (48484, 8, [(ACTIONS 3, 1, [anon_sym_SLASH_SLASH]), (ACTIONS 5, 1, [anon_sym_SLASH_STAR]),
       (ACTIONS 7, 1, [anon_sym_SLASH_SLASH_SLASH]), (ACTIONS 9, 1, [sym__block_comment]),
       (ACTIONS 11, 1, [sym__documentation_block_comment]), (STATE 1051, 2, [sym_comment,
       sym_documentation_comment]), (ACTIONS 2655, 12, [anon_sym_QMARK, anon_sym_LT, anon_sym_GT,
       anon_sym_PIPE, anon_sym_AMP, anon_sym_GT_GT, anon_sym_SLASH, anon_sym_BANG, anon_sym_as,
       anon_sym_DOT, anon_sym_QMARK_DOT, anon_sym_async]), (ACTIONS 2653, 25, [anon_sym_LBRACE,
       anon_sym_LBRACK, anon_sym_COMMA, anon_sym_LPAREN, anon_sym_QMARK_QMARK,
       sym_equality_operator, anon_sym_LT_EQ, anon_sym_GT_EQ, anon_sym_CARET, anon_sym_LT_LT,
       anon_sym_GT_GT_GT, sym__additive_operator, anon_sym_STAR, anon_sym_PERCENT,
       anon_sym_TILDE_SLASH, anon_sym_is, anon_sym_DOT_DOT, anon_sym_QMARK_DOT_DOT,
       anon_sym_SEMI, anon_sym_EQ_GT, anon_sym_async_STAR, anon_sym_sync_STAR, anon_sym_Function,
       anon_sym_AMP_AMP, anon_sym_PIPE_PIPE])])]"

lemma small_run_355: "small_run 1050 48401 ts_small_parse_table_355 1052 48545"
  by (simp add: small_simps ts_small_parse_table_355_def)

definition ts_small_parse_table_356 :: "small_group list" where
  "ts_small_parse_table_356 = [
     (48545, 8, [(ACTIONS 3, 1, [anon_sym_SLASH_SLASH]), (ACTIONS 5, 1, [anon_sym_SLASH_STAR]),
       (ACTIONS 7, 1, [anon_sym_SLASH_SLASH_SLASH]), (ACTIONS 9, 1, [sym__block_comment]),
       (ACTIONS 11, 1, [sym__documentation_block_comment]), (STATE 1052, 2, [sym_comment,
       sym_documentation_comment]), (ACTIONS 1659, 13, [anon_sym_QMARK, anon_sym_LT, anon_sym_GT,
       anon_sym_PIPE, anon_sym_AMP, anon_sym_GT_GT, sym__additive_operator, anon_sym_SLASH,
       anon_sym_BANG, anon_sym_as, anon_sym_DOT, anon_sym_QMARK_DOT, anon_sym_async]), (ACTIONS
       1657, 24, [anon_sym_LBRACE, anon_sym_LBRACK, anon_sym_COMMA, anon_sym_LPAREN,
       anon_sym_QMARK_QMARK, sym_equality_operator, anon_sym_LT_EQ, anon_sym_GT_EQ,
       anon_sym_CARET, anon_sym_LT_LT, anon_sym_GT_GT_GT, anon_sym_STAR, anon_sym_PERCENT,
       anon_sym_TILDE_SLASH, sym_increment_operator, anon_sym_is, anon_sym_DOT_DOT,
       anon_sym_QMARK_DOT_DOT, anon_sym_SEMI, anon_sym_EQ_GT, anon_sym_async_STAR,
       anon_sym_sync_STAR, anon_sym_AMP_AMP, anon_sym_PIPE_PIPE])]),
     (48606, 8, [(ACTIONS 3, 1, [anon_sym_SLASH_SLASH]), (ACTIONS 5, 1, [anon_sym_SLASH_STAR]),
       (ACTIONS 7, 1, [anon_sym_SLASH_SLASH_SLASH]), (ACTIONS 9, 1, [sym__block_comment]),
       (ACTIONS 11, 1, [sym__documentation_block_comment]), (STATE 1053, 2, [sym_comment,
       sym_documentation_comment]), (ACTIONS 2747, 12, [anon_sym_QMARK, anon_sym_LT, anon_sym_GT,
       anon_sym_PIPE, anon_sym_AMP, anon_sym_GT_GT, anon_sym_SLASH, anon_sym_BANG, anon_sym_as,
       anon_sym_DOT, anon_sym_QMARK_DOT, anon_sym_async]), (ACTIONS 2745, 25, [anon_sym_LBRACE,
       anon_sym_LBRACK, anon_sym_COMMA, anon_sym_LPAREN, anon_sym_QMARK_QMARK,
       sym_equality_operator, anon_sym_LT_EQ, anon_sym_GT_EQ, anon_sym_CARET, anon_sym_LT_LT,
       anon_sym_GT_GT_GT, sym__additive_operator, anon_sym_STAR, anon_sym_PERCENT,
       anon_sym_TILDE_SLASH, anon_sym_is, anon_sym_DOT_DOT, anon_sym_QMARK_DOT_DOT,
       anon_sym_SEMI, anon_sym_EQ_GT, anon_sym_async_STAR, anon_sym_sync_STAR, anon_sym_Function,
       anon_sym_AMP_AMP, anon_sym_PIPE_PIPE])])]"

lemma small_run_356: "small_run 1052 48545 ts_small_parse_table_356 1054 48667"
  by (simp add: small_simps ts_small_parse_table_356_def)

definition ts_small_parse_table_357 :: "small_group list" where
  "ts_small_parse_table_357 = [
     (48667, 9, [(ACTIONS 3, 1, [anon_sym_SLASH_SLASH]), (ACTIONS 5, 1, [anon_sym_SLASH_STAR]),
       (ACTIONS 7, 1, [anon_sym_SLASH_SLASH_SLASH]), (ACTIONS 9, 1, [sym__block_comment]),
       (ACTIONS 11, 1, [sym__documentation_block_comment]), (STATE 1047, 1,
       [aux_sym__if_null_expression]), (STATE 1054, 2, [sym_comment, sym_documentation_comment]),
       (ACTIONS 2751, 12, [anon_sym_QMARK, anon_sym_LT, anon_sym_GT, anon_sym_PIPE, anon_sym_AMP,
       anon_sym_GT_GT, anon_sym_SLASH, anon_sym_BANG, anon_sym_as, anon_sym_DOT,
       anon_sym_QMARK_DOT, anon_sym_async]), (ACTIONS 2749, 24, [anon_sym_LBRACE,
       anon_sym_LBRACK, anon_sym_COMMA, anon_sym_LPAREN, anon_sym_QMARK_QMARK,
       sym_equality_operator, anon_sym_LT_EQ, anon_sym_GT_EQ, anon_sym_CARET, anon_sym_LT_LT,
       anon_sym_GT_GT_GT, sym__additive_operator, anon_sym_STAR, anon_sym_PERCENT,
       anon_sym_TILDE_SLASH, anon_sym_is, anon_sym_DOT_DOT, anon_sym_QMARK_DOT_DOT,
       anon_sym_SEMI, anon_sym_EQ_GT, anon_sym_async_STAR, anon_sym_sync_STAR, anon_sym_AMP_AMP,
       anon_sym_PIPE_PIPE])]),
     (48730, 8, [(ACTIONS 3, 1, [anon_sym_SLASH_SLASH]), (ACTIONS 5, 1, [anon_sym_SLASH_STAR]),
       (ACTIONS 7, 1, [anon_sym_SLASH_SLASH_SLASH]), (ACTIONS 9, 1, [sym__block_comment]),
       (ACTIONS 11, 1, [sym__documentation_block_comment]), (STATE 1055, 2, [sym_comment,
       sym_documentation_comment]), (ACTIONS 2555, 12, [anon_sym_QMARK, anon_sym_LT, anon_sym_GT,
       anon_sym_PIPE, anon_sym_AMP, anon_sym_GT_GT, anon_sym_SLASH, anon_sym_BANG, anon_sym_as,
       anon_sym_DOT, anon_sym_QMARK_DOT, anon_sym_async]), (ACTIONS 2550, 25, [anon_sym_LBRACE,
       anon_sym_LBRACK, anon_sym_COMMA, anon_sym_LPAREN, anon_sym_QMARK_QMARK,
       sym_equality_operator, anon_sym_LT_EQ, anon_sym_GT_EQ, anon_sym_CARET, anon_sym_LT_LT,
       anon_sym_GT_GT_GT, sym__additive_operator, anon_sym_STAR, anon_sym_PERCENT,
       anon_sym_TILDE_SLASH, anon_sym_is, anon_sym_DOT_DOT, anon_sym_QMARK_DOT_DOT,
       anon_sym_SEMI, anon_sym_EQ_GT, anon_sym_async_STAR, anon_sym_sync_STAR, anon_sym_Function,
       anon_sym_AMP_AMP, anon_sym_PIPE_PIPE])])]"

lemma small_run_357: "small_run 1054 48667 ts_small_parse_table_357 1056 48791"
  by (simp add: small_simps ts_small_parse_table_357_def)

definition ts_small_parse_table_358 :: "small_group list" where
  "ts_small_parse_table_358 = [
     (48791, 10, [(ACTIONS 3, 1, [anon_sym_SLASH_SLASH]), (ACTIONS 5, 1,
       [anon_sym_SLASH_STAR]), (ACTIONS 7, 1, [anon_sym_SLASH_SLASH_SLASH]), (ACTIONS 9, 1,
       [sym__block_comment]), (ACTIONS 11, 1, [sym__documentation_block_comment]), (ACTIONS 2160,
       1, [anon_sym_LPAREN]), (STATE 1156, 1, [sym_arguments]), (STATE 1056, 2, [sym_comment,
       sym_documentation_comment]), (ACTIONS 2706, 12, [anon_sym_QMARK, anon_sym_LT, anon_sym_GT,
       anon_sym_PIPE, anon_sym_AMP, anon_sym_GT_GT, anon_sym_SLASH, anon_sym_BANG, anon_sym_as,
       anon_sym_DOT, anon_sym_QMARK_DOT, anon_sym_async]), (ACTIONS 2704, 23, [anon_sym_LBRACE,
       anon_sym_LBRACK, anon_sym_COMMA, anon_sym_QMARK_QMARK, sym_equality_operator,
       anon_sym_LT_EQ, anon_sym_GT_EQ, anon_sym_CARET, anon_sym_LT_LT, anon_sym_GT_GT_GT,
       sym__additive_operator, anon_sym_STAR, anon_sym_PERCENT, anon_sym_TILDE_SLASH,
       anon_sym_is, anon_sym_DOT_DOT, anon_sym_QMARK_DOT_DOT, anon_sym_SEMI, anon_sym_EQ_GT,
       anon_sym_async_STAR, anon_sym_sync_STAR, anon_sym_AMP_AMP, anon_sym_PIPE_PIPE])]),
     (48856, 8, [(ACTIONS 3, 1, [anon_sym_SLASH_SLASH]), (ACTIONS 5, 1, [anon_sym_SLASH_STAR]),
       (ACTIONS 7, 1, [anon_sym_SLASH_SLASH_SLASH]), (ACTIONS 9, 1, [sym__block_comment]),
       (ACTIONS 11, 1, [sym__documentation_block_comment]), (STATE 1057, 2, [sym_comment,
       sym_documentation_comment]), (ACTIONS 1663, 13, [anon_sym_QMARK, anon_sym_LT, anon_sym_GT,
       anon_sym_PIPE, anon_sym_AMP, anon_sym_GT_GT, sym__additive_operator, anon_sym_SLASH,
       anon_sym_BANG, anon_sym_as, anon_sym_DOT, anon_sym_QMARK_DOT, anon_sym_async]), (ACTIONS
       1661, 24, [anon_sym_LBRACE, anon_sym_LBRACK, anon_sym_COMMA, anon_sym_LPAREN,
       anon_sym_QMARK_QMARK, sym_equality_operator, anon_sym_LT_EQ, anon_sym_GT_EQ,
       anon_sym_CARET, anon_sym_LT_LT, anon_sym_GT_GT_GT, anon_sym_STAR, anon_sym_PERCENT,
       anon_sym_TILDE_SLASH, sym_increment_operator, anon_sym_is, anon_sym_DOT_DOT,
       anon_sym_QMARK_DOT_DOT, anon_sym_SEMI, anon_sym_EQ_GT, anon_sym_async_STAR,
       anon_sym_sync_STAR, anon_sym_AMP_AMP, anon_sym_PIPE_PIPE])])]"

lemma small_run_358: "small_run 1056 48791 ts_small_parse_table_358 1058 48917"
  by (simp add: small_simps ts_small_parse_table_358_def)

definition ts_small_parse_table_359 :: "small_group list" where
  "ts_small_parse_table_359 = [
     (48917, 8, [(ACTIONS 3, 1, [anon_sym_SLASH_SLASH]), (ACTIONS 5, 1, [anon_sym_SLASH_STAR]),
       (ACTIONS 7, 1, [anon_sym_SLASH_SLASH_SLASH]), (ACTIONS 9, 1, [sym__block_comment]),
       (ACTIONS 11, 1, [sym__documentation_block_comment]), (STATE 1058, 2, [sym_comment,
       sym_documentation_comment]), (ACTIONS 2782, 12, [anon_sym_QMARK, anon_sym_LT, anon_sym_GT,
       anon_sym_PIPE, anon_sym_AMP, anon_sym_GT_GT, anon_sym_SLASH, anon_sym_BANG, anon_sym_as,
       anon_sym_DOT, anon_sym_QMARK_DOT, anon_sym_async]), (ACTIONS 2780, 25, [anon_sym_LBRACE,
       anon_sym_LBRACK, anon_sym_COMMA, anon_sym_LPAREN, anon_sym_QMARK_QMARK,
       sym_equality_operator, anon_sym_LT_EQ, anon_sym_GT_EQ, anon_sym_CARET, anon_sym_LT_LT,
       anon_sym_GT_GT_GT, sym__additive_operator, anon_sym_STAR, anon_sym_PERCENT,
       anon_sym_TILDE_SLASH, anon_sym_is, anon_sym_DOT_DOT, anon_sym_QMARK_DOT_DOT,
       anon_sym_SEMI, anon_sym_EQ_GT, anon_sym_async_STAR, anon_sym_sync_STAR, anon_sym_Function,
       anon_sym_AMP_AMP, anon_sym_PIPE_PIPE])]),
     (48978, 41, [(ACTIONS 3, 1, [anon_sym_SLASH_SLASH]), (ACTIONS 5, 1,
       [anon_sym_SLASH_STAR]), (ACTIONS 7, 1, [anon_sym_SLASH_SLASH_SLASH]), (ACTIONS 9, 1,
       [sym__block_comment]), (ACTIONS 11, 1, [sym__documentation_block_comment]), (ACTIONS 15,
       1, [sym_identifier]), (ACTIONS 17, 1, [anon_sym_LPAREN]), (ACTIONS 33, 1,
       [sym_void_type]), (ACTIONS 35, 1, [anon_sym_var]), (ACTIONS 45, 1, [anon_sym_Function]),
       (ACTIONS 47, 1, [anon_sym_get]), (ACTIONS 61, 1, [anon_sym_set]), (ACTIONS 67, 1,
       [anon_sym_late]), (ACTIONS 143, 1, [anon_sym_AT]), (ACTIONS 145, 1, [anon_sym_final]),
       (ACTIONS 153, 1, [anon_sym_covariant]), (ACTIONS 2268, 1, [sym_const_builtin]), (STATE
       546, 1, [sym_lambda_expression]), (STATE 1308, 1, [aux_sym__metadata_repeat1]), (STATE
       1361, 1, [sym_annotation]), (STATE 1463, 1, [sym__function_builtin_identifier]), (STATE
       1530, 1, [sym__type_name]), (STATE 1605, 1, [aux_sym__function_type_tails]), (STATE 1704,
       1, [sym__function_type_tail]), (STATE 1722, 1, [sym__metadata]), (STATE 1764, 1,
       [sym_final_builtin]), (STATE 1771, 1, [sym_inferred_type]), (STATE 1796, 1,
       [sym__type_not_function]), (STATE 1799, 1, [sym__covariant]), (STATE 1805, 1,
       [sym_record_type]), (STATE 1848, 1, [sym_function_type]), (STATE 1896, 1,
       [sym__type_not_void_not_function]), (STATE 1915, 1, [sym__late_builtin]), (STATE 2368, 1,
       [sym_function_signature]), (STATE 2530, 1, [sym__type]), (STATE 2667, 1,
       [sym__declared_identifier]), (STATE 2755, 1, [sym__var_or_type]), (STATE 3419, 1,
       [sym__final_const_var_or_type]), (STATE 1059, 2, [sym_comment,
       sym_documentation_comment]), (STATE 2500, 2, [sym__get, sym__set]), (STATE 3160, 2,
       [sym_pattern_variable_declaration, sym_initialized_variable_definition])])]"

lemma small_run_359: "small_run 1058 48917 ts_small_parse_table_359 1060 49105"
  by (simp add: small_simps ts_small_parse_table_359_def)

definition ts_small_parse_table_360 :: "small_group list" where
  "ts_small_parse_table_360 = [
     (49105, 14, [(ACTIONS 3, 1, [anon_sym_SLASH_SLASH]), (ACTIONS 5, 1,
       [anon_sym_SLASH_STAR]), (ACTIONS 7, 1, [anon_sym_SLASH_SLASH_SLASH]), (ACTIONS 9, 1,
       [sym__block_comment]), (ACTIONS 11, 1, [sym__documentation_block_comment]), (ACTIONS 1341,
       1, [anon_sym_DOT]), (ACTIONS 2787, 1, [anon_sym_QMARK]), (ACTIONS 2790, 1, [anon_sym_LT]),
       (STATE 1612, 1, [sym__type_dot_identifier]), (ACTIONS 1322, 2, [anon_sym_LBRACK,
       anon_sym_LPAREN]), (ACTIONS 1332, 2, [anon_sym_BANG, anon_sym_QMARK_DOT]), (STATE 1060, 2,
       [sym_comment, sym_documentation_comment]), (ACTIONS 1328, 7, [anon_sym_GT, anon_sym_PIPE,
       anon_sym_AMP, anon_sym_GT_GT, anon_sym_SLASH, anon_sym_as, anon_sym_async]), (ACTIONS
       1330, 22, [anon_sym_LBRACE, anon_sym_COMMA, anon_sym_QMARK_QMARK, sym_equality_operator,
       anon_sym_LT_EQ, anon_sym_GT_EQ, anon_sym_CARET, anon_sym_LT_LT, anon_sym_GT_GT_GT,
       sym__additive_operator, anon_sym_STAR, anon_sym_PERCENT, anon_sym_TILDE_SLASH,
       anon_sym_is, anon_sym_DOT_DOT, anon_sym_QMARK_DOT_DOT, anon_sym_SEMI, anon_sym_EQ_GT,
       anon_sym_async_STAR, anon_sym_sync_STAR, anon_sym_AMP_AMP, anon_sym_PIPE_PIPE])]),
     (49178, 8, [(ACTIONS 3, 1, [anon_sym_SLASH_SLASH]), (ACTIONS 5, 1, [anon_sym_SLASH_STAR]),
       (ACTIONS 7, 1, [anon_sym_SLASH_SLASH_SLASH]), (ACTIONS 9, 1, [sym__block_comment]),
       (ACTIONS 11, 1, [sym__documentation_block_comment]), (STATE 1061, 2, [sym_comment,
       sym_documentation_comment]), (ACTIONS 2640, 12, [anon_sym_QMARK, anon_sym_LT, anon_sym_GT,
       anon_sym_PIPE, anon_sym_AMP, anon_sym_GT_GT, anon_sym_SLASH, anon_sym_BANG, anon_sym_as,
       anon_sym_DOT, anon_sym_QMARK_DOT, anon_sym_async]), (ACTIONS 2638, 25, [anon_sym_LBRACE,
       anon_sym_LBRACK, anon_sym_COMMA, anon_sym_LPAREN, anon_sym_QMARK_QMARK,
       sym_equality_operator, anon_sym_LT_EQ, anon_sym_GT_EQ, anon_sym_CARET, anon_sym_LT_LT,
       anon_sym_GT_GT_GT, sym__additive_operator, anon_sym_STAR, anon_sym_PERCENT,
       anon_sym_TILDE_SLASH, anon_sym_is, anon_sym_DOT_DOT, anon_sym_QMARK_DOT_DOT,
       anon_sym_SEMI, anon_sym_EQ_GT, anon_sym_async_STAR, anon_sym_sync_STAR, anon_sym_Function,
       anon_sym_AMP_AMP, anon_sym_PIPE_PIPE])])]"

lemma small_run_360: "small_run 1060 49105 ts_small_parse_table_360 1062 49239"
  by (simp add: small_simps ts_small_parse_table_360_def)

definition ts_small_parse_table_361 :: "small_group list" where
  "ts_small_parse_table_361 = [
     (49239, 9, [(ACTIONS 3, 1, [anon_sym_SLASH_SLASH]), (ACTIONS 5, 1, [anon_sym_SLASH_STAR]),
       (ACTIONS 7, 1, [anon_sym_SLASH_SLASH_SLASH]), (ACTIONS 9, 1, [sym__block_comment]),
       (ACTIONS 11, 1, [sym__documentation_block_comment]), (ACTIONS 3138, 1, [anon_sym_AMP]),
       (STATE 1062, 3, [sym_comment, sym_documentation_comment,
       aux_sym_bitwise_and_expression_repeat1]), (ACTIONS 1408, 11, [anon_sym_QMARK, anon_sym_LT,
       anon_sym_GT, anon_sym_PIPE, anon_sym_GT_GT, anon_sym_SLASH, anon_sym_BANG, anon_sym_as,
       anon_sym_DOT, anon_sym_QMARK_DOT, anon_sym_async]), (ACTIONS 1406, 24, [anon_sym_LBRACE,
       anon_sym_LBRACK, anon_sym_COMMA, anon_sym_LPAREN, anon_sym_QMARK_QMARK,
       sym_equality_operator, anon_sym_LT_EQ, anon_sym_GT_EQ, anon_sym_CARET, anon_sym_LT_LT,
       anon_sym_GT_GT_GT, sym__additive_operator, anon_sym_STAR, anon_sym_PERCENT,
       anon_sym_TILDE_SLASH, anon_sym_is, anon_sym_DOT_DOT, anon_sym_QMARK_DOT_DOT,
       anon_sym_SEMI, anon_sym_EQ_GT, anon_sym_async_STAR, anon_sym_sync_STAR, anon_sym_AMP_AMP,
       anon_sym_PIPE_PIPE])]),
     (49302, 9, [(ACTIONS 3, 1, [anon_sym_SLASH_SLASH]), (ACTIONS 5, 1, [anon_sym_SLASH_STAR]),
       (ACTIONS 7, 1, [anon_sym_SLASH_SLASH_SLASH]), (ACTIONS 9, 1, [sym__block_comment]),
       (ACTIONS 11, 1, [sym__documentation_block_comment]), (STATE 1025, 1,
       [aux_sym_bitwise_xor_expression_repeat1]), (STATE 1063, 2, [sym_comment,
       sym_documentation_comment]), (ACTIONS 2616, 12, [anon_sym_QMARK, anon_sym_LT, anon_sym_GT,
       anon_sym_PIPE, anon_sym_AMP, anon_sym_GT_GT, anon_sym_SLASH, anon_sym_BANG, anon_sym_as,
       anon_sym_DOT, anon_sym_QMARK_DOT, anon_sym_async]), (ACTIONS 2614, 24, [anon_sym_LBRACE,
       anon_sym_LBRACK, anon_sym_COMMA, anon_sym_LPAREN, anon_sym_QMARK_QMARK,
       sym_equality_operator, anon_sym_LT_EQ, anon_sym_GT_EQ, anon_sym_CARET, anon_sym_LT_LT,
       anon_sym_GT_GT_GT, sym__additive_operator, anon_sym_STAR, anon_sym_PERCENT,
       anon_sym_TILDE_SLASH, anon_sym_is, anon_sym_DOT_DOT, anon_sym_QMARK_DOT_DOT,
       anon_sym_SEMI, anon_sym_EQ_GT, anon_sym_async_STAR, anon_sym_sync_STAR, anon_sym_AMP_AMP,
       anon_sym_PIPE_PIPE])])]"

lemma small_run_361: "small_run 1062 49239 ts_small_parse_table_361 1064 49365"
  by (simp add: small_simps ts_small_parse_table_361_def)

definition ts_small_parse_table_362 :: "small_group list" where
  "ts_small_parse_table_362 = [
     (49365, 41, [(ACTIONS 3, 1, [anon_sym_SLASH_SLASH]), (ACTIONS 5, 1,
       [anon_sym_SLASH_STAR]), (ACTIONS 7, 1, [anon_sym_SLASH_SLASH_SLASH]), (ACTIONS 9, 1,
       [sym__block_comment]), (ACTIONS 11, 1, [sym__documentation_block_comment]), (ACTIONS 17,
       1, [anon_sym_LPAREN]), (ACTIONS 33, 1, [sym_void_type]), (ACTIONS 35, 1, [anon_sym_var]),
       (ACTIONS 45, 1, [anon_sym_Function]), (ACTIONS 67, 1, [anon_sym_late]), (ACTIONS 143, 1,
       [anon_sym_AT]), (ACTIONS 145, 1, [anon_sym_final]), (ACTIONS 153, 1,
       [anon_sym_covariant]), (ACTIONS 159, 1, [anon_sym_this]), (ACTIONS 161, 1,
       [anon_sym_super]), (ACTIONS 2268, 1, [sym_const_builtin]), (ACTIONS 3141, 1,
       [sym_identifier]), (STATE 1308, 1, [aux_sym__metadata_repeat1]), (STATE 1361, 1,
       [sym_annotation]), (STATE 1463, 1, [sym__function_builtin_identifier]), (STATE 1530, 1,
       [sym__type_name]), (STATE 1605, 1, [aux_sym__function_type_tails]), (STATE 1704, 1,
       [sym__function_type_tail]), (STATE 1722, 1, [sym__metadata]), (STATE 1796, 1,
       [sym__type_not_function]), (STATE 1798, 1, [sym__covariant]), (STATE 1805, 1,
       [sym_record_type]), (STATE 1848, 1, [sym_function_type]), (STATE 1896, 1,
       [sym__type_not_void_not_function]), (STATE 1915, 1, [sym__late_builtin]), (STATE 1976, 1,
       [sym_inferred_type]), (STATE 1984, 1, [sym_final_builtin]), (STATE 2468, 1,
       [sym__declared_identifier]), (STATE 2478, 1, [sym__simple_formal_parameter]), (STATE 2540,
       1, [sym__final_const_var_or_type]), (STATE 2581, 1, [sym__type]), (STATE 2755, 1,
       [sym__var_or_type]), (STATE 3283, 1, [sym_this]), (STATE 3288, 1, [sym_super]), (STATE
       1064, 2, [sym_comment, sym_documentation_comment]), (STATE 2480, 3,
       [sym__function_formal_parameter, sym_super_formal_parameter, sym_constructor_param])]),
     (49492, 8, [(ACTIONS 3, 1, [anon_sym_SLASH_SLASH]), (ACTIONS 5, 1, [anon_sym_SLASH_STAR]),
       (ACTIONS 7, 1, [anon_sym_SLASH_SLASH_SLASH]), (ACTIONS 9, 1, [sym__block_comment]),
       (ACTIONS 11, 1, [sym__documentation_block_comment]), (STATE 1065, 2, [sym_comment,
       sym_documentation_comment]), (ACTIONS 2710, 12, [anon_sym_QMARK, anon_sym_LT, anon_sym_GT,
       anon_sym_PIPE, anon_sym_AMP, anon_sym_GT_GT, anon_sym_SLASH, anon_sym_BANG, anon_sym_as,
       anon_sym_DOT, anon_sym_QMARK_DOT, anon_sym_async]), (ACTIONS 2708, 25, [anon_sym_LBRACE,
       anon_sym_LBRACK, anon_sym_COMMA, anon_sym_LPAREN, anon_sym_QMARK_QMARK,
       sym_equality_operator, anon_sym_LT_EQ, anon_sym_GT_EQ, anon_sym_CARET, anon_sym_LT_LT,
       anon_sym_GT_GT_GT, sym__additive_operator, anon_sym_STAR, anon_sym_PERCENT,
       anon_sym_TILDE_SLASH, anon_sym_is, anon_sym_DOT_DOT, anon_sym_QMARK_DOT_DOT,
       anon_sym_SEMI, anon_sym_EQ_GT, anon_sym_async_STAR, anon_sym_sync_STAR, anon_sym_Function,
       anon_sym_AMP_AMP, anon_sym_PIPE_PIPE])])]"

lemma small_run_362: "small_run 1064 49365 ts_small_parse_table_362 1066 49553"
  by (simp add: small_simps ts_small_parse_table_362_def)

definition ts_small_parse_table_363 :: "small_group list" where
  "ts_small_parse_table_363 = [
     (49553, 8, [(ACTIONS 3, 1, [anon_sym_SLASH_SLASH]), (ACTIONS 5, 1, [anon_sym_SLASH_STAR]),
       (ACTIONS 7, 1, [anon_sym_SLASH_SLASH_SLASH]), (ACTIONS 9, 1, [sym__block_comment]),
       (ACTIONS 11, 1, [sym__documentation_block_comment]), (STATE 1066, 2, [sym_comment,
       sym_documentation_comment]), (ACTIONS 2644, 12, [anon_sym_QMARK, anon_sym_LT, anon_sym_GT,
       anon_sym_PIPE, anon_sym_AMP, anon_sym_GT_GT, anon_sym_SLASH, anon_sym_BANG, anon_sym_as,
       anon_sym_DOT, anon_sym_QMARK_DOT, anon_sym_async]), (ACTIONS 2642, 25, [anon_sym_LBRACE,
       anon_sym_LBRACK, anon_sym_COMMA, anon_sym_LPAREN, anon_sym_QMARK_QMARK,
       sym_equality_operator, anon_sym_LT_EQ, anon_sym_GT_EQ, anon_sym_CARET, anon_sym_LT_LT,
       anon_sym_GT_GT_GT, sym__additive_operator, anon_sym_STAR, anon_sym_PERCENT,
       anon_sym_TILDE_SLASH, anon_sym_is, anon_sym_DOT_DOT, anon_sym_QMARK_DOT_DOT,
       anon_sym_SEMI, anon_sym_EQ_GT, anon_sym_async_STAR, anon_sym_sync_STAR, anon_sym_Function,
       anon_sym_AMP_AMP, anon_sym_PIPE_PIPE])]),
     (49614, 8, [(ACTIONS 3, 1, [anon_sym_SLASH_SLASH]), (ACTIONS 5, 1, [anon_sym_SLASH_STAR]),
       (ACTIONS 7, 1, [anon_sym_SLASH_SLASH_SLASH]), (ACTIONS 9, 1, [sym__block_comment]),
       (ACTIONS 11, 1, [sym__documentation_block_comment]), (STATE 1067, 2, [sym_comment,
       sym_documentation_comment]), (ACTIONS 2651, 12, [anon_sym_QMARK, anon_sym_LT, anon_sym_GT,
       anon_sym_PIPE, anon_sym_AMP, anon_sym_GT_GT, anon_sym_SLASH, anon_sym_BANG, anon_sym_as,
       anon_sym_DOT, anon_sym_QMARK_DOT, anon_sym_async]), (ACTIONS 2649, 25, [anon_sym_LBRACE,
       anon_sym_LBRACK, anon_sym_COMMA, anon_sym_LPAREN, anon_sym_QMARK_QMARK,
       sym_equality_operator, anon_sym_LT_EQ, anon_sym_GT_EQ, anon_sym_CARET, anon_sym_LT_LT,
       anon_sym_GT_GT_GT, sym__additive_operator, anon_sym_STAR, anon_sym_PERCENT,
       anon_sym_TILDE_SLASH, anon_sym_is, anon_sym_DOT_DOT, anon_sym_QMARK_DOT_DOT,
       anon_sym_SEMI, anon_sym_EQ_GT, anon_sym_async_STAR, anon_sym_sync_STAR, anon_sym_Function,
       anon_sym_AMP_AMP, anon_sym_PIPE_PIPE])])]"

lemma small_run_363: "small_run 1066 49553 ts_small_parse_table_363 1068 49675"
  by (simp add: small_simps ts_small_parse_table_363_def)

definition ts_small_parse_table_364 :: "small_group list" where
  "ts_small_parse_table_364 = [
     (49675, 8, [(ACTIONS 3, 1, [anon_sym_SLASH_SLASH]), (ACTIONS 5, 1, [anon_sym_SLASH_STAR]),
       (ACTIONS 7, 1, [anon_sym_SLASH_SLASH_SLASH]), (ACTIONS 9, 1, [sym__block_comment]),
       (ACTIONS 11, 1, [sym__documentation_block_comment]), (STATE 1068, 2, [sym_comment,
       sym_documentation_comment]), (ACTIONS 1697, 13, [anon_sym_QMARK, anon_sym_LT, anon_sym_GT,
       anon_sym_PIPE, anon_sym_AMP, anon_sym_GT_GT, sym__additive_operator, anon_sym_SLASH,
       anon_sym_BANG, anon_sym_as, anon_sym_DOT, anon_sym_QMARK_DOT, anon_sym_async]), (ACTIONS
       1695, 24, [anon_sym_LBRACE, anon_sym_LBRACK, anon_sym_COMMA, anon_sym_LPAREN,
       anon_sym_QMARK_QMARK, sym_equality_operator, anon_sym_LT_EQ, anon_sym_GT_EQ,
       anon_sym_CARET, anon_sym_LT_LT, anon_sym_GT_GT_GT, anon_sym_STAR, anon_sym_PERCENT,
       anon_sym_TILDE_SLASH, sym_increment_operator, anon_sym_is, anon_sym_DOT_DOT,
       anon_sym_QMARK_DOT_DOT, anon_sym_SEMI, anon_sym_EQ_GT, anon_sym_async_STAR,
       anon_sym_sync_STAR, anon_sym_AMP_AMP, anon_sym_PIPE_PIPE])]),
     (49736, 20, [(ACTIONS 3, 1, [anon_sym_SLASH_SLASH]), (ACTIONS 5, 1,
       [anon_sym_SLASH_STAR]), (ACTIONS 7, 1, [anon_sym_SLASH_SLASH_SLASH]), (ACTIONS 9, 1,
       [sym__block_comment]), (ACTIONS 11, 1, [sym__documentation_block_comment]), (ACTIONS 1067,
       1, [anon_sym_EQ]), (ACTIONS 2419, 1, [anon_sym_LBRACK]), (ACTIONS 2423, 1,
       [anon_sym_QMARK]), (ACTIONS 2427, 1, [anon_sym_DOT]), (ACTIONS 2429, 1,
       [anon_sym_QMARK_DOT]), (STATE 293, 1, [sym__assignment_operator]), (STATE 965, 1,
       [aux_sym_cascade_section_repeat2]), (STATE 980, 1, [sym__cascade_assignment_section]),
       (STATE 997, 1, [sym__assignable_selector]), (STATE 1141, 1, [sym__cascade_subsection]),
       (STATE 1145, 1, [sym_index_selector]), (STATE 1069, 2, [sym_comment,
       sym_documentation_comment]), (STATE 1138, 2, [sym_unconditional_assignable_selector,
       sym_conditional_assignable_selector]), (ACTIONS 1065, 11, [anon_sym_RBRACE,
       anon_sym_COMMA, anon_sym_RBRACK, anon_sym_COLON, anon_sym_RPAREN, anon_sym_DOT_DOT,
       anon_sym_QMARK_DOT_DOT, anon_sym_SEMI, anon_sym_EQ_GT, anon_sym_case, anon_sym_else]),
       (ACTIONS 1069, 13, [anon_sym_PLUS_EQ, anon_sym_DASH_EQ, anon_sym_STAR_EQ,
       anon_sym_SLASH_EQ, anon_sym_PERCENT_EQ, anon_sym_TILDE_SLASH_EQ, anon_sym_LT_LT_EQ,
       anon_sym_GT_GT_EQ, anon_sym_GT_GT_GT_EQ, anon_sym_AMP_EQ, anon_sym_CARET_EQ,
       anon_sym_PIPE_EQ, anon_sym_QMARK_QMARK_EQ])])]"

lemma small_run_364: "small_run 1068 49675 ts_small_parse_table_364 1070 49821"
  by (simp add: small_simps ts_small_parse_table_364_def)

definition ts_small_parse_table_365 :: "small_group list" where
  "ts_small_parse_table_365 = [
     (49821, 8, [(ACTIONS 3, 1, [anon_sym_SLASH_SLASH]), (ACTIONS 5, 1, [anon_sym_SLASH_STAR]),
       (ACTIONS 7, 1, [anon_sym_SLASH_SLASH_SLASH]), (ACTIONS 9, 1, [sym__block_comment]),
       (ACTIONS 11, 1, [sym__documentation_block_comment]), (STATE 1070, 2, [sym_comment,
       sym_documentation_comment]), (ACTIONS 2722, 12, [anon_sym_QMARK, anon_sym_LT, anon_sym_GT,
       anon_sym_PIPE, anon_sym_AMP, anon_sym_GT_GT, anon_sym_SLASH, anon_sym_BANG, anon_sym_as,
       anon_sym_DOT, anon_sym_QMARK_DOT, anon_sym_async]), (ACTIONS 2720, 25, [anon_sym_LBRACE,
       anon_sym_LBRACK, anon_sym_COMMA, anon_sym_LPAREN, anon_sym_QMARK_QMARK,
       sym_equality_operator, anon_sym_LT_EQ, anon_sym_GT_EQ, anon_sym_CARET, anon_sym_LT_LT,
       anon_sym_GT_GT_GT, sym__additive_operator, anon_sym_STAR, anon_sym_PERCENT,
       anon_sym_TILDE_SLASH, anon_sym_is, anon_sym_DOT_DOT, anon_sym_QMARK_DOT_DOT,
       anon_sym_SEMI, anon_sym_EQ_GT, anon_sym_async_STAR, anon_sym_sync_STAR, anon_sym_Function,
       anon_sym_AMP_AMP, anon_sym_PIPE_PIPE])]),
     (49882, 8, [(ACTIONS 3, 1, [anon_sym_SLASH_SLASH]), (ACTIONS 5, 1, [anon_sym_SLASH_STAR]),
       (ACTIONS 7, 1, [anon_sym_SLASH_SLASH_SLASH]), (ACTIONS 9, 1, [sym__block_comment]),
       (ACTIONS 11, 1, [sym__documentation_block_comment]), (STATE 1071, 2, [sym_comment,
       sym_documentation_comment]), (ACTIONS 2728, 12, [anon_sym_QMARK, anon_sym_LT, anon_sym_GT,
       anon_sym_PIPE, anon_sym_AMP, anon_sym_GT_GT, anon_sym_SLASH, anon_sym_BANG, anon_sym_as,
       anon_sym_DOT, anon_sym_QMARK_DOT, anon_sym_async]), (ACTIONS 2726, 25, [anon_sym_LBRACE,
       anon_sym_LBRACK, anon_sym_COMMA, anon_sym_LPAREN, anon_sym_QMARK_QMARK,
       sym_equality_operator, anon_sym_LT_EQ, anon_sym_GT_EQ, anon_sym_CARET, anon_sym_LT_LT,
       anon_sym_GT_GT_GT, sym__additive_operator, anon_sym_STAR, anon_sym_PERCENT,
       anon_sym_TILDE_SLASH, anon_sym_is, anon_sym_DOT_DOT, anon_sym_QMARK_DOT_DOT,
       anon_sym_SEMI, anon_sym_EQ_GT, anon_sym_async_STAR, anon_sym_sync_STAR, anon_sym_Function,
       anon_sym_AMP_AMP, anon_sym_PIPE_PIPE])])]"

lemma small_run_365: "small_run 1070 49821 ts_small_parse_table_365 1072 49943"
  by (simp add: small_simps ts_small_parse_table_365_def)

definition ts_small_parse_table_366 :: "small_group list" where
  "ts_small_parse_table_366 = [
     (49943, 9, [(ACTIONS 3, 1, [anon_sym_SLASH_SLASH]), (ACTIONS 5, 1, [anon_sym_SLASH_STAR]),
       (ACTIONS 7, 1, [anon_sym_SLASH_SLASH_SLASH]), (ACTIONS 9, 1, [sym__block_comment]),
       (ACTIONS 11, 1, [sym__documentation_block_comment]), (STATE 1033, 1,
       [aux_sym_bitwise_or_expression_repeat1]), (STATE 1072, 2, [sym_comment,
       sym_documentation_comment]), (ACTIONS 2612, 12, [anon_sym_QMARK, anon_sym_LT, anon_sym_GT,
       anon_sym_PIPE, anon_sym_AMP, anon_sym_GT_GT, anon_sym_SLASH, anon_sym_BANG, anon_sym_as,
       anon_sym_DOT, anon_sym_QMARK_DOT, anon_sym_async]), (ACTIONS 2610, 24, [anon_sym_LBRACE,
       anon_sym_LBRACK, anon_sym_COMMA, anon_sym_LPAREN, anon_sym_QMARK_QMARK,
       sym_equality_operator, anon_sym_LT_EQ, anon_sym_GT_EQ, anon_sym_CARET, anon_sym_LT_LT,
       anon_sym_GT_GT_GT, sym__additive_operator, anon_sym_STAR, anon_sym_PERCENT,
       anon_sym_TILDE_SLASH, anon_sym_is, anon_sym_DOT_DOT, anon_sym_QMARK_DOT_DOT,
       anon_sym_SEMI, anon_sym_EQ_GT, anon_sym_async_STAR, anon_sym_sync_STAR, anon_sym_AMP_AMP,
       anon_sym_PIPE_PIPE])]),
     (50006, 8, [(ACTIONS 3, 1, [anon_sym_SLASH_SLASH]), (ACTIONS 5, 1, [anon_sym_SLASH_STAR]),
       (ACTIONS 7, 1, [anon_sym_SLASH_SLASH_SLASH]), (ACTIONS 9, 1, [sym__block_comment]),
       (ACTIONS 11, 1, [sym__documentation_block_comment]), (STATE 1073, 2, [sym_comment,
       sym_documentation_comment]), (ACTIONS 2572, 12, [anon_sym_QMARK, anon_sym_LT, anon_sym_GT,
       anon_sym_PIPE, anon_sym_AMP, anon_sym_GT_GT, anon_sym_SLASH, anon_sym_BANG, anon_sym_as,
       anon_sym_DOT, anon_sym_QMARK_DOT, anon_sym_async]), (ACTIONS 2567, 25, [anon_sym_LBRACE,
       anon_sym_LBRACK, anon_sym_COMMA, anon_sym_LPAREN, anon_sym_QMARK_QMARK,
       sym_equality_operator, anon_sym_LT_EQ, anon_sym_GT_EQ, anon_sym_CARET, anon_sym_LT_LT,
       anon_sym_GT_GT_GT, sym__additive_operator, anon_sym_STAR, anon_sym_PERCENT,
       anon_sym_TILDE_SLASH, anon_sym_is, anon_sym_DOT_DOT, anon_sym_QMARK_DOT_DOT,
       anon_sym_SEMI, anon_sym_EQ_GT, anon_sym_async_STAR, anon_sym_sync_STAR, anon_sym_Function,
       anon_sym_AMP_AMP, anon_sym_PIPE_PIPE])])]"

lemma small_run_366: "small_run 1072 49943 ts_small_parse_table_366 1074 50067"
  by (simp add: small_simps ts_small_parse_table_366_def)

definition ts_small_parse_table_367 :: "small_group list" where
  "ts_small_parse_table_367 = [
     (50067, 20, [(ACTIONS 3, 1, [anon_sym_SLASH_SLASH]), (ACTIONS 5, 1,
       [anon_sym_SLASH_STAR]), (ACTIONS 7, 1, [anon_sym_SLASH_SLASH_SLASH]), (ACTIONS 9, 1,
       [sym__block_comment]), (ACTIONS 11, 1, [sym__documentation_block_comment]), (ACTIONS 1067,
       1, [anon_sym_EQ]), (ACTIONS 2419, 1, [anon_sym_LBRACK]), (ACTIONS 2423, 1,
       [anon_sym_QMARK]), (ACTIONS 2427, 1, [anon_sym_DOT]), (ACTIONS 2429, 1,
       [anon_sym_QMARK_DOT]), (STATE 293, 1, [sym__assignment_operator]), (STATE 939, 1,
       [sym__cascade_assignment_section]), (STATE 965, 1, [aux_sym_cascade_section_repeat2]),
       (STATE 997, 1, [sym__assignable_selector]), (STATE 1141, 1, [sym__cascade_subsection]),
       (STATE 1145, 1, [sym_index_selector]), (STATE 1074, 2, [sym_comment,
       sym_documentation_comment]), (STATE 1138, 2, [sym_unconditional_assignable_selector,
       sym_conditional_assignable_selector]), (ACTIONS 1153, 11, [anon_sym_RBRACE,
       anon_sym_COMMA, anon_sym_RBRACK, anon_sym_COLON, anon_sym_RPAREN, anon_sym_DOT_DOT,
       anon_sym_QMARK_DOT_DOT, anon_sym_SEMI, anon_sym_EQ_GT, anon_sym_case, anon_sym_else]),
       (ACTIONS 1069, 13, [anon_sym_PLUS_EQ, anon_sym_DASH_EQ, anon_sym_STAR_EQ,
       anon_sym_SLASH_EQ, anon_sym_PERCENT_EQ, anon_sym_TILDE_SLASH_EQ, anon_sym_LT_LT_EQ,
       anon_sym_GT_GT_EQ, anon_sym_GT_GT_GT_EQ, anon_sym_AMP_EQ, anon_sym_CARET_EQ,
       anon_sym_PIPE_EQ, anon_sym_QMARK_QMARK_EQ])]),
     (50152, 8, [(ACTIONS 3, 1, [anon_sym_SLASH_SLASH]), (ACTIONS 5, 1, [anon_sym_SLASH_STAR]),
       (ACTIONS 7, 1, [anon_sym_SLASH_SLASH_SLASH]), (ACTIONS 9, 1, [sym__block_comment]),
       (ACTIONS 11, 1, [sym__documentation_block_comment]), (STATE 1075, 2, [sym_comment,
       sym_documentation_comment]), (ACTIONS 2735, 12, [anon_sym_QMARK, anon_sym_LT, anon_sym_GT,
       anon_sym_PIPE, anon_sym_AMP, anon_sym_GT_GT, anon_sym_SLASH, anon_sym_BANG, anon_sym_as,
       anon_sym_DOT, anon_sym_QMARK_DOT, anon_sym_async]), (ACTIONS 2733, 25, [anon_sym_LBRACE,
       anon_sym_LBRACK, anon_sym_COMMA, anon_sym_LPAREN, anon_sym_QMARK_QMARK,
       sym_equality_operator, anon_sym_LT_EQ, anon_sym_GT_EQ, anon_sym_CARET, anon_sym_LT_LT,
       anon_sym_GT_GT_GT, sym__additive_operator, anon_sym_STAR, anon_sym_PERCENT,
       anon_sym_TILDE_SLASH, anon_sym_is, anon_sym_DOT_DOT, anon_sym_QMARK_DOT_DOT,
       anon_sym_SEMI, anon_sym_EQ_GT, anon_sym_async_STAR, anon_sym_sync_STAR, anon_sym_Function,
       anon_sym_AMP_AMP, anon_sym_PIPE_PIPE])])]"

lemma small_run_367: "small_run 1074 50067 ts_small_parse_table_367 1076 50213"
  by (simp add: small_simps ts_small_parse_table_367_def)

definition ts_small_parse_table_368 :: "small_group list" where
  "ts_small_parse_table_368 = [
     (50213, 8, [(ACTIONS 3, 1, [anon_sym_SLASH_SLASH]), (ACTIONS 5, 1, [anon_sym_SLASH_STAR]),
       (ACTIONS 7, 1, [anon_sym_SLASH_SLASH_SLASH]), (ACTIONS 9, 1, [sym__block_comment]),
       (ACTIONS 11, 1, [sym__documentation_block_comment]), (STATE 1076, 2, [sym_comment,
       sym_documentation_comment]), (ACTIONS 2801, 12, [anon_sym_QMARK, anon_sym_LT, anon_sym_GT,
       anon_sym_PIPE, anon_sym_AMP, anon_sym_GT_GT, anon_sym_SLASH, anon_sym_BANG, anon_sym_as,
       anon_sym_DOT, anon_sym_QMARK_DOT, anon_sym_async]), (ACTIONS 2799, 25, [anon_sym_LBRACE,
       anon_sym_LBRACK, anon_sym_COMMA, anon_sym_LPAREN, anon_sym_QMARK_QMARK,
       sym_equality_operator, anon_sym_LT_EQ, anon_sym_GT_EQ, anon_sym_CARET, anon_sym_LT_LT,
       anon_sym_GT_GT_GT, sym__additive_operator, anon_sym_STAR, anon_sym_PERCENT,
       anon_sym_TILDE_SLASH, anon_sym_is, anon_sym_DOT_DOT, anon_sym_QMARK_DOT_DOT,
       anon_sym_SEMI, anon_sym_EQ_GT, anon_sym_async_STAR, anon_sym_sync_STAR, anon_sym_Function,
       anon_sym_AMP_AMP, anon_sym_PIPE_PIPE])]),
     (50274, 41, [(ACTIONS 3, 1, [anon_sym_SLASH_SLASH]), (ACTIONS 5, 1,
       [anon_sym_SLASH_STAR]), (ACTIONS 7, 1, [anon_sym_SLASH_SLASH_SLASH]), (ACTIONS 9, 1,
       [sym__block_comment]), (ACTIONS 11, 1, [sym__documentation_block_comment]), (ACTIONS 17,
       1, [anon_sym_LPAREN]), (ACTIONS 33, 1, [sym_void_type]), (ACTIONS 35, 1, [anon_sym_var]),
       (ACTIONS 45, 1, [anon_sym_Function]), (ACTIONS 67, 1, [anon_sym_late]), (ACTIONS 143, 1,
       [anon_sym_AT]), (ACTIONS 145, 1, [anon_sym_final]), (ACTIONS 153, 1,
       [anon_sym_covariant]), (ACTIONS 159, 1, [anon_sym_this]), (ACTIONS 161, 1,
       [anon_sym_super]), (ACTIONS 2262, 1, [sym_identifier]), (ACTIONS 2268, 1,
       [sym_const_builtin]), (STATE 1308, 1, [aux_sym__metadata_repeat1]), (STATE 1361, 1,
       [sym_annotation]), (STATE 1463, 1, [sym__function_builtin_identifier]), (STATE 1530, 1,
       [sym__type_name]), (STATE 1605, 1, [aux_sym__function_type_tails]), (STATE 1704, 1,
       [sym__function_type_tail]), (STATE 1722, 1, [sym__metadata]), (STATE 1796, 1,
       [sym__type_not_function]), (STATE 1798, 1, [sym__covariant]), (STATE 1805, 1,
       [sym_record_type]), (STATE 1848, 1, [sym_function_type]), (STATE 1896, 1,
       [sym__type_not_void_not_function]), (STATE 1915, 1, [sym__late_builtin]), (STATE 1976, 1,
       [sym_inferred_type]), (STATE 1984, 1, [sym_final_builtin]), (STATE 2468, 1,
       [sym__declared_identifier]), (STATE 2478, 1, [sym__simple_formal_parameter]), (STATE 2540,
       1, [sym__final_const_var_or_type]), (STATE 2755, 1, [sym__var_or_type]), (STATE 2756, 1,
       [sym__type]), (STATE 3283, 1, [sym_this]), (STATE 3288, 1, [sym_super]), (STATE 1077, 2,
       [sym_comment, sym_documentation_comment]), (STATE 2480, 3,
       [sym__function_formal_parameter, sym_super_formal_parameter, sym_constructor_param])])]"

lemma small_run_368: "small_run 1076 50213 ts_small_parse_table_368 1078 50401"
  by (simp add: small_simps ts_small_parse_table_368_def)

definition ts_small_parse_table_369 :: "small_group list" where
  "ts_small_parse_table_369 = [
     (50401, 10, [(ACTIONS 3, 1, [anon_sym_SLASH_SLASH]), (ACTIONS 5, 1,
       [anon_sym_SLASH_STAR]), (ACTIONS 7, 1, [anon_sym_SLASH_SLASH_SLASH]), (ACTIONS 9, 1,
       [sym__block_comment]), (ACTIONS 11, 1, [sym__documentation_block_comment]), (ACTIONS 2160,
       1, [anon_sym_LPAREN]), (STATE 1152, 1, [sym_arguments]), (STATE 1078, 2, [sym_comment,
       sym_documentation_comment]), (ACTIONS 1686, 12, [anon_sym_QMARK, anon_sym_LT, anon_sym_GT,
       anon_sym_PIPE, anon_sym_AMP, anon_sym_GT_GT, anon_sym_SLASH, anon_sym_BANG, anon_sym_as,
       anon_sym_DOT, anon_sym_QMARK_DOT, anon_sym_async]), (ACTIONS 1680, 23, [anon_sym_LBRACE,
       anon_sym_LBRACK, anon_sym_COMMA, anon_sym_QMARK_QMARK, sym_equality_operator,
       anon_sym_LT_EQ, anon_sym_GT_EQ, anon_sym_CARET, anon_sym_LT_LT, anon_sym_GT_GT_GT,
       sym__additive_operator, anon_sym_STAR, anon_sym_PERCENT, anon_sym_TILDE_SLASH,
       anon_sym_is, anon_sym_DOT_DOT, anon_sym_QMARK_DOT_DOT, anon_sym_SEMI, anon_sym_EQ_GT,
       anon_sym_async_STAR, anon_sym_sync_STAR, anon_sym_AMP_AMP, anon_sym_PIPE_PIPE])]),
     (50466, 8, [(ACTIONS 3, 1, [anon_sym_SLASH_SLASH]), (ACTIONS 5, 1, [anon_sym_SLASH_STAR]),
       (ACTIONS 7, 1, [anon_sym_SLASH_SLASH_SLASH]), (ACTIONS 9, 1, [sym__block_comment]),
       (ACTIONS 11, 1, [sym__documentation_block_comment]), (STATE 1079, 2, [sym_comment,
       sym_documentation_comment]), (ACTIONS 2684, 12, [anon_sym_QMARK, anon_sym_LT, anon_sym_GT,
       anon_sym_PIPE, anon_sym_AMP, anon_sym_GT_GT, anon_sym_SLASH, anon_sym_BANG, anon_sym_as,
       anon_sym_DOT, anon_sym_QMARK_DOT, anon_sym_async]), (ACTIONS 2682, 25, [anon_sym_LBRACE,
       anon_sym_LBRACK, anon_sym_COMMA, anon_sym_LPAREN, anon_sym_QMARK_QMARK,
       sym_equality_operator, anon_sym_LT_EQ, anon_sym_GT_EQ, anon_sym_CARET, anon_sym_LT_LT,
       anon_sym_GT_GT_GT, sym__additive_operator, anon_sym_STAR, anon_sym_PERCENT,
       anon_sym_TILDE_SLASH, anon_sym_is, anon_sym_DOT_DOT, anon_sym_QMARK_DOT_DOT,
       anon_sym_SEMI, anon_sym_EQ_GT, anon_sym_async_STAR, anon_sym_sync_STAR, anon_sym_Function,
       anon_sym_AMP_AMP, anon_sym_PIPE_PIPE])])]"

lemma small_run_369: "small_run 1078 50401 ts_small_parse_table_369 1080 50527"
  by (simp add: small_simps ts_small_parse_table_369_def)

definition ts_small_parse_table_370 :: "small_group list" where
  "ts_small_parse_table_370 = [
     (50527, 8, [(ACTIONS 3, 1, [anon_sym_SLASH_SLASH]), (ACTIONS 5, 1, [anon_sym_SLASH_STAR]),
       (ACTIONS 7, 1, [anon_sym_SLASH_SLASH_SLASH]), (ACTIONS 9, 1, [sym__block_comment]),
       (ACTIONS 11, 1, [sym__documentation_block_comment]), (STATE 1080, 2, [sym_comment,
       sym_documentation_comment]), (ACTIONS 2702, 12, [anon_sym_QMARK, anon_sym_LT, anon_sym_GT,
       anon_sym_PIPE, anon_sym_AMP, anon_sym_GT_GT, anon_sym_SLASH, anon_sym_BANG, anon_sym_as,
       anon_sym_DOT, anon_sym_QMARK_DOT, anon_sym_async]), (ACTIONS 2700, 25, [anon_sym_LBRACE,
       anon_sym_LBRACK, anon_sym_COMMA, anon_sym_LPAREN, anon_sym_QMARK_QMARK,
       sym_equality_operator, anon_sym_LT_EQ, anon_sym_GT_EQ, anon_sym_CARET, anon_sym_LT_LT,
       anon_sym_GT_GT_GT, sym__additive_operator, anon_sym_STAR, anon_sym_PERCENT,
       anon_sym_TILDE_SLASH, anon_sym_is, anon_sym_DOT_DOT, anon_sym_QMARK_DOT_DOT,
       anon_sym_SEMI, anon_sym_EQ_GT, anon_sym_async_STAR, anon_sym_sync_STAR, anon_sym_Function,
       anon_sym_AMP_AMP, anon_sym_PIPE_PIPE])]),
     (50588, 9, [(ACTIONS 3, 1, [anon_sym_SLASH_SLASH]), (ACTIONS 5, 1, [anon_sym_SLASH_STAR]),
       (ACTIONS 7, 1, [anon_sym_SLASH_SLASH_SLASH]), (ACTIONS 9, 1, [sym__block_comment]),
       (ACTIONS 11, 1, [sym__documentation_block_comment]), (ACTIONS 2696, 1, [anon_sym_EQ]),
       (STATE 1081, 2, [sym_comment, sym_documentation_comment]), (ACTIONS 2698, 12,
       [anon_sym_QMARK, anon_sym_LT, anon_sym_GT, anon_sym_PIPE, anon_sym_AMP, anon_sym_GT_GT,
       anon_sym_SLASH, anon_sym_BANG, anon_sym_as, anon_sym_DOT, anon_sym_QMARK_DOT,
       anon_sym_async]), (ACTIONS 2694, 24, [anon_sym_LBRACE, anon_sym_LBRACK, anon_sym_COMMA,
       anon_sym_LPAREN, anon_sym_QMARK_QMARK, sym_equality_operator, anon_sym_LT_EQ,
       anon_sym_GT_EQ, anon_sym_CARET, anon_sym_LT_LT, anon_sym_GT_GT_GT, sym__additive_operator,
       anon_sym_STAR, anon_sym_PERCENT, anon_sym_TILDE_SLASH, anon_sym_is, anon_sym_DOT_DOT,
       anon_sym_QMARK_DOT_DOT, anon_sym_SEMI, anon_sym_EQ_GT, anon_sym_async_STAR,
       anon_sym_sync_STAR, anon_sym_AMP_AMP, anon_sym_PIPE_PIPE])])]"

lemma small_run_370: "small_run 1080 50527 ts_small_parse_table_370 1082 50651"
  by (simp add: small_simps ts_small_parse_table_370_def)

definition ts_small_parse_table_371 :: "small_group list" where
  "ts_small_parse_table_371 = [
     (50651, 8, [(ACTIONS 3, 1, [anon_sym_SLASH_SLASH]), (ACTIONS 5, 1, [anon_sym_SLASH_STAR]),
       (ACTIONS 7, 1, [anon_sym_SLASH_SLASH_SLASH]), (ACTIONS 9, 1, [sym__block_comment]),
       (ACTIONS 11, 1, [sym__documentation_block_comment]), (STATE 1082, 2, [sym_comment,
       sym_documentation_comment]), (ACTIONS 2692, 12, [anon_sym_QMARK, anon_sym_LT, anon_sym_GT,
       anon_sym_PIPE, anon_sym_AMP, anon_sym_GT_GT, anon_sym_SLASH, anon_sym_BANG, anon_sym_as,
       anon_sym_DOT, anon_sym_QMARK_DOT, anon_sym_async]), (ACTIONS 2690, 25, [anon_sym_LBRACE,
       anon_sym_LBRACK, anon_sym_COMMA, anon_sym_LPAREN, anon_sym_QMARK_QMARK,
       sym_equality_operator, anon_sym_LT_EQ, anon_sym_GT_EQ, anon_sym_CARET, anon_sym_LT_LT,
       anon_sym_GT_GT_GT, sym__additive_operator, anon_sym_STAR, anon_sym_PERCENT,
       anon_sym_TILDE_SLASH, anon_sym_is, anon_sym_DOT_DOT, anon_sym_QMARK_DOT_DOT,
       anon_sym_SEMI, anon_sym_EQ_GT, anon_sym_async_STAR, anon_sym_sync_STAR, anon_sym_Function,
       anon_sym_AMP_AMP, anon_sym_PIPE_PIPE])]),
     (50712, 8, [(ACTIONS 3, 1, [anon_sym_SLASH_SLASH]), (ACTIONS 5, 1, [anon_sym_SLASH_STAR]),
       (ACTIONS 7, 1, [anon_sym_SLASH_SLASH_SLASH]), (ACTIONS 9, 1, [sym__block_comment]),
       (ACTIONS 11, 1, [sym__documentation_block_comment]), (STATE 1083, 2, [sym_comment,
       sym_documentation_comment]), (ACTIONS 2714, 12, [anon_sym_QMARK, anon_sym_LT, anon_sym_GT,
       anon_sym_PIPE, anon_sym_AMP, anon_sym_GT_GT, anon_sym_SLASH, anon_sym_BANG, anon_sym_as,
       anon_sym_DOT, anon_sym_QMARK_DOT, anon_sym_async]), (ACTIONS 2712, 25, [anon_sym_LBRACE,
       anon_sym_LBRACK, anon_sym_COMMA, anon_sym_LPAREN, anon_sym_QMARK_QMARK,
       sym_equality_operator, anon_sym_LT_EQ, anon_sym_GT_EQ, anon_sym_CARET, anon_sym_LT_LT,
       anon_sym_GT_GT_GT, sym__additive_operator, anon_sym_STAR, anon_sym_PERCENT,
       anon_sym_TILDE_SLASH, anon_sym_is, anon_sym_DOT_DOT, anon_sym_QMARK_DOT_DOT,
       anon_sym_SEMI, anon_sym_EQ_GT, anon_sym_async_STAR, anon_sym_sync_STAR, anon_sym_Function,
       anon_sym_AMP_AMP, anon_sym_PIPE_PIPE])])]"

lemma small_run_371: "small_run 1082 50651 ts_small_parse_table_371 1084 50773"
  by (simp add: small_simps ts_small_parse_table_371_def)

definition ts_small_parse_table_372 :: "small_group list" where
  "ts_small_parse_table_372 = [
     (50773, 9, [(ACTIONS 3, 1, [anon_sym_SLASH_SLASH]), (ACTIONS 5, 1, [anon_sym_SLASH_STAR]),
       (ACTIONS 7, 1, [anon_sym_SLASH_SLASH_SLASH]), (ACTIONS 9, 1, [sym__block_comment]),
       (ACTIONS 11, 1, [sym__documentation_block_comment]), (STATE 1062, 1,
       [aux_sym_bitwise_and_expression_repeat1]), (STATE 1084, 2, [sym_comment,
       sym_documentation_comment]), (ACTIONS 2620, 12, [anon_sym_QMARK, anon_sym_LT, anon_sym_GT,
       anon_sym_PIPE, anon_sym_AMP, anon_sym_GT_GT, anon_sym_SLASH, anon_sym_BANG, anon_sym_as,
       anon_sym_DOT, anon_sym_QMARK_DOT, anon_sym_async]), (ACTIONS 2618, 24, [anon_sym_LBRACE,
       anon_sym_LBRACK, anon_sym_COMMA, anon_sym_LPAREN, anon_sym_QMARK_QMARK,
       sym_equality_operator, anon_sym_LT_EQ, anon_sym_GT_EQ, anon_sym_CARET, anon_sym_LT_LT,
       anon_sym_GT_GT_GT, sym__additive_operator, anon_sym_STAR, anon_sym_PERCENT,
       anon_sym_TILDE_SLASH, anon_sym_is, anon_sym_DOT_DOT, anon_sym_QMARK_DOT_DOT,
       anon_sym_SEMI, anon_sym_EQ_GT, anon_sym_async_STAR, anon_sym_sync_STAR, anon_sym_AMP_AMP,
       anon_sym_PIPE_PIPE])]),
     (50836, 8, [(ACTIONS 3, 1, [anon_sym_SLASH_SLASH]), (ACTIONS 5, 1, [anon_sym_SLASH_STAR]),
       (ACTIONS 7, 1, [anon_sym_SLASH_SLASH_SLASH]), (ACTIONS 9, 1, [sym__block_comment]),
       (ACTIONS 11, 1, [sym__documentation_block_comment]), (STATE 1085, 2, [sym_comment,
       sym_documentation_comment]), (ACTIONS 3010, 12, [anon_sym_QMARK, anon_sym_LT, anon_sym_GT,
       anon_sym_PIPE, anon_sym_AMP, anon_sym_GT_GT, anon_sym_SLASH, anon_sym_BANG, anon_sym_as,
       anon_sym_DOT, anon_sym_QMARK_DOT, anon_sym_async]), (ACTIONS 3008, 24, [anon_sym_LBRACE,
       anon_sym_LBRACK, anon_sym_COMMA, anon_sym_LPAREN, anon_sym_QMARK_QMARK,
       sym_equality_operator, anon_sym_LT_EQ, anon_sym_GT_EQ, anon_sym_CARET, anon_sym_LT_LT,
       anon_sym_GT_GT_GT, sym__additive_operator, anon_sym_STAR, anon_sym_PERCENT,
       anon_sym_TILDE_SLASH, anon_sym_is, anon_sym_DOT_DOT, anon_sym_QMARK_DOT_DOT,
       anon_sym_SEMI, anon_sym_EQ_GT, anon_sym_async_STAR, anon_sym_sync_STAR, anon_sym_AMP_AMP,
       anon_sym_PIPE_PIPE])])]"

lemma small_run_372: "small_run 1084 50773 ts_small_parse_table_372 1086 50896"
  by (simp add: small_simps ts_small_parse_table_372_def)

definition ts_small_parse_table_373 :: "small_group list" where
  "ts_small_parse_table_373 = [
     (50896, 12, [(ACTIONS 3, 1, [anon_sym_SLASH_SLASH]), (ACTIONS 5, 1,
       [anon_sym_SLASH_STAR]), (ACTIONS 7, 1, [anon_sym_SLASH_SLASH_SLASH]), (ACTIONS 9, 1,
       [sym__block_comment]), (ACTIONS 11, 1, [sym__documentation_block_comment]), (ACTIONS 1330,
       1, [sym_increment_operator]), (ACTIONS 1334, 1, [anon_sym_LT]), (ACTIONS 1993, 1,
       [anon_sym_DOT]), (STATE 1612, 1, [sym__type_dot_identifier]), (STATE 1086, 2,
       [sym_comment, sym_documentation_comment]), (ACTIONS 1332, 8, [anon_sym_QMARK, anon_sym_GT,
       anon_sym_PIPE, anon_sym_AMP, anon_sym_GT_GT, sym__additive_operator, anon_sym_SLASH,
       anon_sym_BANG]), (ACTIONS 1322, 24, [anon_sym_RBRACE, anon_sym_LBRACK, anon_sym_COMMA,
       anon_sym_RBRACK, anon_sym_COLON, anon_sym_LPAREN, anon_sym_RPAREN, anon_sym_QMARK_QMARK,
       sym_equality_operator, anon_sym_LT_EQ, anon_sym_GT_EQ, anon_sym_CARET, anon_sym_LT_LT,
       anon_sym_GT_GT_GT, anon_sym_STAR, anon_sym_PERCENT, anon_sym_TILDE_SLASH, anon_sym_is,
       anon_sym_as, anon_sym_QMARK_DOT, anon_sym_EQ_GT, anon_sym_when, anon_sym_AMP_AMP,
       anon_sym_PIPE_PIPE])]),
     (50964, 8, [(ACTIONS 3, 1, [anon_sym_SLASH_SLASH]), (ACTIONS 5, 1, [anon_sym_SLASH_STAR]),
       (ACTIONS 7, 1, [anon_sym_SLASH_SLASH_SLASH]), (ACTIONS 9, 1, [sym__block_comment]),
       (ACTIONS 11, 1, [sym__documentation_block_comment]), (STATE 1087, 2, [sym_comment,
       sym_documentation_comment]), (ACTIONS 3096, 12, [anon_sym_QMARK, anon_sym_LT, anon_sym_GT,
       anon_sym_PIPE, anon_sym_AMP, anon_sym_GT_GT, anon_sym_SLASH, anon_sym_BANG, anon_sym_as,
       anon_sym_DOT, anon_sym_QMARK_DOT, anon_sym_async]), (ACTIONS 3094, 24, [anon_sym_LBRACE,
       anon_sym_LBRACK, anon_sym_COMMA, anon_sym_LPAREN, anon_sym_QMARK_QMARK,
       sym_equality_operator, anon_sym_LT_EQ, anon_sym_GT_EQ, anon_sym_CARET, anon_sym_LT_LT,
       anon_sym_GT_GT_GT, sym__additive_operator, anon_sym_STAR, anon_sym_PERCENT,
       anon_sym_TILDE_SLASH, anon_sym_is, anon_sym_DOT_DOT, anon_sym_QMARK_DOT_DOT,
       anon_sym_SEMI, anon_sym_EQ_GT, anon_sym_async_STAR, anon_sym_sync_STAR, anon_sym_AMP_AMP,
       anon_sym_PIPE_PIPE])])]"

lemma small_run_373: "small_run 1086 50896 ts_small_parse_table_373 1088 51024"
  by (simp add: small_simps ts_small_parse_table_373_def)

definition ts_small_parse_table_374 :: "small_group list" where
  "ts_small_parse_table_374 = [
     (51024, 8, [(ACTIONS 3, 1, [anon_sym_SLASH_SLASH]), (ACTIONS 5, 1, [anon_sym_SLASH_STAR]),
       (ACTIONS 7, 1, [anon_sym_SLASH_SLASH_SLASH]), (ACTIONS 9, 1, [sym__block_comment]),
       (ACTIONS 11, 1, [sym__documentation_block_comment]), (STATE 1088, 2, [sym_comment,
       sym_documentation_comment]), (ACTIONS 1717, 6, [anon_sym_EQ, anon_sym_QMARK, anon_sym_LT,
       anon_sym_DOT, anon_sym_QMARK_DOT, anon_sym_async]), (ACTIONS 1715, 30, [anon_sym_LBRACE,
       anon_sym_RBRACE, anon_sym_LBRACK, anon_sym_COMMA, anon_sym_RBRACK, anon_sym_COLON,
       anon_sym_LPAREN, anon_sym_RPAREN, anon_sym_PLUS_EQ, anon_sym_DASH_EQ, anon_sym_STAR_EQ,
       anon_sym_SLASH_EQ, anon_sym_PERCENT_EQ, anon_sym_TILDE_SLASH_EQ, anon_sym_LT_LT_EQ,
       anon_sym_GT_GT_EQ, anon_sym_GT_GT_GT_EQ, anon_sym_AMP_EQ, anon_sym_CARET_EQ,
       anon_sym_PIPE_EQ, anon_sym_QMARK_QMARK_EQ, anon_sym_BANG, anon_sym_DOT_DOT,
       anon_sym_QMARK_DOT_DOT, anon_sym_SEMI, anon_sym_EQ_GT, anon_sym_case, anon_sym_else,
       anon_sym_async_STAR, anon_sym_sync_STAR])]),
     (51084, 8, [(ACTIONS 3, 1, [anon_sym_SLASH_SLASH]), (ACTIONS 5, 1, [anon_sym_SLASH_STAR]),
       (ACTIONS 7, 1, [anon_sym_SLASH_SLASH_SLASH]), (ACTIONS 9, 1, [sym__block_comment]),
       (ACTIONS 11, 1, [sym__documentation_block_comment]), (STATE 1089, 2, [sym_comment,
       sym_documentation_comment]), (ACTIONS 3044, 12, [anon_sym_QMARK, anon_sym_LT, anon_sym_GT,
       anon_sym_PIPE, anon_sym_AMP, anon_sym_GT_GT, anon_sym_SLASH, anon_sym_BANG, anon_sym_as,
       anon_sym_DOT, anon_sym_QMARK_DOT, anon_sym_async]), (ACTIONS 3042, 24, [anon_sym_LBRACE,
       anon_sym_LBRACK, anon_sym_COMMA, anon_sym_LPAREN, anon_sym_QMARK_QMARK,
       sym_equality_operator, anon_sym_LT_EQ, anon_sym_GT_EQ, anon_sym_CARET, anon_sym_LT_LT,
       anon_sym_GT_GT_GT, sym__additive_operator, anon_sym_STAR, anon_sym_PERCENT,
       anon_sym_TILDE_SLASH, anon_sym_is, anon_sym_DOT_DOT, anon_sym_QMARK_DOT_DOT,
       anon_sym_SEMI, anon_sym_EQ_GT, anon_sym_async_STAR, anon_sym_sync_STAR, anon_sym_AMP_AMP,
       anon_sym_PIPE_PIPE])])]"

lemma small_run_374: "small_run 1088 51024 ts_small_parse_table_374 1090 51144"
  by (simp add: small_simps ts_small_parse_table_374_def)

definition ts_small_parse_table_375 :: "small_group list" where
  "ts_small_parse_table_375 = [
     (51144, 8, [(ACTIONS 3, 1, [anon_sym_SLASH_SLASH]), (ACTIONS 5, 1, [anon_sym_SLASH_STAR]),
       (ACTIONS 7, 1, [anon_sym_SLASH_SLASH_SLASH]), (ACTIONS 9, 1, [sym__block_comment]),
       (ACTIONS 11, 1, [sym__documentation_block_comment]), (STATE 1090, 2, [sym_comment,
       sym_documentation_comment]), (ACTIONS 1645, 12, [anon_sym_QMARK, anon_sym_LT, anon_sym_GT,
       anon_sym_PIPE, anon_sym_AMP, anon_sym_GT_GT, anon_sym_SLASH, anon_sym_BANG, anon_sym_as,
       anon_sym_DOT, anon_sym_QMARK_DOT, anon_sym_async]), (ACTIONS 1643, 24, [anon_sym_LBRACE,
       anon_sym_LBRACK, anon_sym_COMMA, anon_sym_LPAREN, anon_sym_QMARK_QMARK,
       sym_equality_operator, anon_sym_LT_EQ, anon_sym_GT_EQ, anon_sym_CARET, anon_sym_LT_LT,
       anon_sym_GT_GT_GT, sym__additive_operator, anon_sym_STAR, anon_sym_PERCENT,
       anon_sym_TILDE_SLASH, anon_sym_is, anon_sym_DOT_DOT, anon_sym_QMARK_DOT_DOT,
       anon_sym_SEMI, anon_sym_EQ_GT, anon_sym_async_STAR, anon_sym_sync_STAR, anon_sym_AMP_AMP,
       anon_sym_PIPE_PIPE])]),
     (51204, 8, [(ACTIONS 3, 1, [anon_sym_SLASH_SLASH]), (ACTIONS 5, 1, [anon_sym_SLASH_STAR]),
       (ACTIONS 7, 1, [anon_sym_SLASH_SLASH_SLASH]), (ACTIONS 9, 1, [sym__block_comment]),
       (ACTIONS 11, 1, [sym__documentation_block_comment]), (STATE 1091, 2, [sym_comment,
       sym_documentation_comment]), (ACTIONS 2910, 12, [anon_sym_QMARK, anon_sym_LT, anon_sym_GT,
       anon_sym_PIPE, anon_sym_AMP, anon_sym_GT_GT, anon_sym_SLASH, anon_sym_BANG, anon_sym_as,
       anon_sym_DOT, anon_sym_QMARK_DOT, anon_sym_async]), (ACTIONS 2908, 24, [anon_sym_LBRACE,
       anon_sym_LBRACK, anon_sym_COMMA, anon_sym_LPAREN, anon_sym_QMARK_QMARK,
       sym_equality_operator, anon_sym_LT_EQ, anon_sym_GT_EQ, anon_sym_CARET, anon_sym_LT_LT,
       anon_sym_GT_GT_GT, sym__additive_operator, anon_sym_STAR, anon_sym_PERCENT,
       anon_sym_TILDE_SLASH, anon_sym_is, anon_sym_DOT_DOT, anon_sym_QMARK_DOT_DOT,
       anon_sym_SEMI, anon_sym_EQ_GT, anon_sym_async_STAR, anon_sym_sync_STAR, anon_sym_AMP_AMP,
       anon_sym_PIPE_PIPE])])]"

lemma small_run_375: "small_run 1090 51144 ts_small_parse_table_375 1092 51264"
  by (simp add: small_simps ts_small_parse_table_375_def)

definition ts_small_parse_table_376 :: "small_group list" where
  "ts_small_parse_table_376 = [
     (51264, 8, [(ACTIONS 3, 1, [anon_sym_SLASH_SLASH]), (ACTIONS 5, 1, [anon_sym_SLASH_STAR]),
       (ACTIONS 7, 1, [anon_sym_SLASH_SLASH_SLASH]), (ACTIONS 9, 1, [sym__block_comment]),
       (ACTIONS 11, 1, [sym__documentation_block_comment]), (STATE 1092, 2, [sym_comment,
       sym_documentation_comment]), (ACTIONS 1819, 11, [anon_sym_RBRACE, anon_sym_LBRACK,
       anon_sym_COMMA, anon_sym_LPAREN, anon_sym_LT, anon_sym_BANG, anon_sym_DOT,
       anon_sym_QMARK_DOT, anon_sym_SEMI, anon_sym_AT, sym_part_of_builtin]), (ACTIONS 1821, 25,
       [anon_sym_QMARK, anon_sym_part, anon_sym_enum, anon_sym_final, anon_sym_inline,
       anon_sym_class, anon_sym_extension, sym_void_type, anon_sym_var, anon_sym_library,
       anon_sym_export, anon_sym_Function, anon_sym_get, anon_sym_import, anon_sym_interface,
       anon_sym_base, anon_sym_abstract, anon_sym_sealed, anon_sym_mixin, anon_sym_set,
       anon_sym_typedef, sym_const_builtin, anon_sym_late, anon_sym_external, sym_identifier])]),
     (51324, 8, [(ACTIONS 3, 1, [anon_sym_SLASH_SLASH]), (ACTIONS 5, 1, [anon_sym_SLASH_STAR]),
       (ACTIONS 7, 1, [anon_sym_SLASH_SLASH_SLASH]), (ACTIONS 9, 1, [sym__block_comment]),
       (ACTIONS 11, 1, [sym__documentation_block_comment]), (STATE 1093, 2, [sym_comment,
       sym_documentation_comment]), (ACTIONS 3076, 12, [anon_sym_QMARK, anon_sym_LT, anon_sym_GT,
       anon_sym_PIPE, anon_sym_AMP, anon_sym_GT_GT, anon_sym_SLASH, anon_sym_BANG, anon_sym_as,
       anon_sym_DOT, anon_sym_QMARK_DOT, anon_sym_async]), (ACTIONS 3074, 24, [anon_sym_LBRACE,
       anon_sym_LBRACK, anon_sym_COMMA, anon_sym_LPAREN, anon_sym_QMARK_QMARK,
       sym_equality_operator, anon_sym_LT_EQ, anon_sym_GT_EQ, anon_sym_CARET, anon_sym_LT_LT,
       anon_sym_GT_GT_GT, sym__additive_operator, anon_sym_STAR, anon_sym_PERCENT,
       anon_sym_TILDE_SLASH, anon_sym_is, anon_sym_DOT_DOT, anon_sym_QMARK_DOT_DOT,
       anon_sym_SEMI, anon_sym_EQ_GT, anon_sym_async_STAR, anon_sym_sync_STAR, anon_sym_AMP_AMP,
       anon_sym_PIPE_PIPE])])]"

lemma small_run_376: "small_run 1092 51264 ts_small_parse_table_376 1094 51384"
  by (simp add: small_simps ts_small_parse_table_376_def)

definition ts_small_parse_table_377 :: "small_group list" where
  "ts_small_parse_table_377 = [
     (51384, 8, [(ACTIONS 3, 1, [anon_sym_SLASH_SLASH]), (ACTIONS 5, 1, [anon_sym_SLASH_STAR]),
       (ACTIONS 7, 1, [anon_sym_SLASH_SLASH_SLASH]), (ACTIONS 9, 1, [sym__block_comment]),
       (ACTIONS 11, 1, [sym__documentation_block_comment]), (STATE 1094, 2, [sym_comment,
       sym_documentation_comment]), (ACTIONS 2130, 12, [anon_sym_QMARK, anon_sym_LT, anon_sym_GT,
       anon_sym_PIPE, anon_sym_AMP, anon_sym_GT_GT, anon_sym_SLASH, anon_sym_BANG, anon_sym_as,
       anon_sym_DOT, anon_sym_QMARK_DOT, anon_sym_async]), (ACTIONS 2128, 24, [anon_sym_LBRACE,
       anon_sym_LBRACK, anon_sym_COMMA, anon_sym_LPAREN, anon_sym_QMARK_QMARK,
       sym_equality_operator, anon_sym_LT_EQ, anon_sym_GT_EQ, anon_sym_CARET, anon_sym_LT_LT,
       anon_sym_GT_GT_GT, sym__additive_operator, anon_sym_STAR, anon_sym_PERCENT,
       anon_sym_TILDE_SLASH, anon_sym_is, anon_sym_DOT_DOT, anon_sym_QMARK_DOT_DOT,
       anon_sym_SEMI, anon_sym_EQ_GT, anon_sym_async_STAR, anon_sym_sync_STAR, anon_sym_AMP_AMP,
       anon_sym_PIPE_PIPE])]),
     (51444, 8, [(ACTIONS 3, 1, [anon_sym_SLASH_SLASH]), (ACTIONS 5, 1, [anon_sym_SLASH_STAR]),
       (ACTIONS 7, 1, [anon_sym_SLASH_SLASH_SLASH]), (ACTIONS 9, 1, [sym__block_comment]),
       (ACTIONS 11, 1, [sym__documentation_block_comment]), (STATE 1095, 2, [sym_comment,
       sym_documentation_comment]), (ACTIONS 2926, 12, [anon_sym_QMARK, anon_sym_LT, anon_sym_GT,
       anon_sym_PIPE, anon_sym_AMP, anon_sym_GT_GT, anon_sym_SLASH, anon_sym_BANG, anon_sym_as,
       anon_sym_DOT, anon_sym_QMARK_DOT, anon_sym_async]), (ACTIONS 2924, 24, [anon_sym_LBRACE,
       anon_sym_LBRACK, anon_sym_COMMA, anon_sym_LPAREN, anon_sym_QMARK_QMARK,
       sym_equality_operator, anon_sym_LT_EQ, anon_sym_GT_EQ, anon_sym_CARET, anon_sym_LT_LT,
       anon_sym_GT_GT_GT, sym__additive_operator, anon_sym_STAR, anon_sym_PERCENT,
       anon_sym_TILDE_SLASH, anon_sym_is, anon_sym_DOT_DOT, anon_sym_QMARK_DOT_DOT,
       anon_sym_SEMI, anon_sym_EQ_GT, anon_sym_async_STAR, anon_sym_sync_STAR, anon_sym_AMP_AMP,
       anon_sym_PIPE_PIPE])])]"

lemma small_run_377: "small_run 1094 51384 ts_small_parse_table_377 1096 51504"
  by (simp add: small_simps ts_small_parse_table_377_def)

definition ts_small_parse_table_378 :: "small_group list" where
  "ts_small_parse_table_378 = [
     (51504, 8, [(ACTIONS 3, 1, [anon_sym_SLASH_SLASH]), (ACTIONS 5, 1, [anon_sym_SLASH_STAR]),
       (ACTIONS 7, 1, [anon_sym_SLASH_SLASH_SLASH]), (ACTIONS 9, 1, [sym__block_comment]),
       (ACTIONS 11, 1, [sym__documentation_block_comment]), (STATE 1096, 2, [sym_comment,
       sym_documentation_comment]), (ACTIONS 1670, 12, [anon_sym_QMARK, anon_sym_LT, anon_sym_GT,
       anon_sym_PIPE, anon_sym_AMP, anon_sym_GT_GT, anon_sym_SLASH, anon_sym_BANG, anon_sym_as,
       anon_sym_DOT, anon_sym_QMARK_DOT, anon_sym_async]), (ACTIONS 1668, 24, [anon_sym_LBRACE,
       anon_sym_LBRACK, anon_sym_COMMA, anon_sym_LPAREN, anon_sym_QMARK_QMARK,
       sym_equality_operator, anon_sym_LT_EQ, anon_sym_GT_EQ, anon_sym_CARET, anon_sym_LT_LT,
       anon_sym_GT_GT_GT, sym__additive_operator, anon_sym_STAR, anon_sym_PERCENT,
       anon_sym_TILDE_SLASH, anon_sym_is, anon_sym_DOT_DOT, anon_sym_QMARK_DOT_DOT,
       anon_sym_SEMI, anon_sym_EQ_GT, anon_sym_async_STAR, anon_sym_sync_STAR, anon_sym_AMP_AMP,
       anon_sym_PIPE_PIPE])]),
     (51564, 8, [(ACTIONS 3, 1, [anon_sym_SLASH_SLASH]), (ACTIONS 5, 1, [anon_sym_SLASH_STAR]),
       (ACTIONS 7, 1, [anon_sym_SLASH_SLASH_SLASH]), (ACTIONS 9, 1, [sym__block_comment]),
       (ACTIONS 11, 1, [sym__documentation_block_comment]), (STATE 1097, 2, [sym_comment,
       sym_documentation_comment]), (ACTIONS 3084, 12, [anon_sym_QMARK, anon_sym_LT, anon_sym_GT,
       anon_sym_PIPE, anon_sym_AMP, anon_sym_GT_GT, anon_sym_SLASH, anon_sym_BANG, anon_sym_as,
       anon_sym_DOT, anon_sym_QMARK_DOT, anon_sym_async]), (ACTIONS 3082, 24, [anon_sym_LBRACE,
       anon_sym_LBRACK, anon_sym_COMMA, anon_sym_LPAREN, anon_sym_QMARK_QMARK,
       sym_equality_operator, anon_sym_LT_EQ, anon_sym_GT_EQ, anon_sym_CARET, anon_sym_LT_LT,
       anon_sym_GT_GT_GT, sym__additive_operator, anon_sym_STAR, anon_sym_PERCENT,
       anon_sym_TILDE_SLASH, anon_sym_is, anon_sym_DOT_DOT, anon_sym_QMARK_DOT_DOT,
       anon_sym_SEMI, anon_sym_EQ_GT, anon_sym_async_STAR, anon_sym_sync_STAR, anon_sym_AMP_AMP,
       anon_sym_PIPE_PIPE])])]"

lemma small_run_378: "small_run 1096 51504 ts_small_parse_table_378 1098 51624"
  by (simp add: small_simps ts_small_parse_table_378_def)

definition ts_small_parse_table_379 :: "small_group list" where
  "ts_small_parse_table_379 = [
     (51624, 8, [(ACTIONS 3, 1, [anon_sym_SLASH_SLASH]), (ACTIONS 5, 1, [anon_sym_SLASH_STAR]),
       (ACTIONS 7, 1, [anon_sym_SLASH_SLASH_SLASH]), (ACTIONS 9, 1, [sym__block_comment]),
       (ACTIONS 11, 1, [sym__documentation_block_comment]), (STATE 1098, 2, [sym_comment,
       sym_documentation_comment]), (ACTIONS 2031, 12, [anon_sym_QMARK, anon_sym_LT, anon_sym_GT,
       anon_sym_PIPE, anon_sym_AMP, anon_sym_GT_GT, anon_sym_SLASH, anon_sym_BANG, anon_sym_as,
       anon_sym_DOT, anon_sym_QMARK_DOT, anon_sym_async]), (ACTIONS 2017, 24, [anon_sym_LBRACE,
       anon_sym_LBRACK, anon_sym_COMMA, anon_sym_LPAREN, anon_sym_QMARK_QMARK,
       sym_equality_operator, anon_sym_LT_EQ, anon_sym_GT_EQ, anon_sym_CARET, anon_sym_LT_LT,
       anon_sym_GT_GT_GT, sym__additive_operator, anon_sym_STAR, anon_sym_PERCENT,
       anon_sym_TILDE_SLASH, anon_sym_is, anon_sym_DOT_DOT, anon_sym_QMARK_DOT_DOT,
       anon_sym_SEMI, anon_sym_EQ_GT, anon_sym_async_STAR, anon_sym_sync_STAR, anon_sym_AMP_AMP,
       anon_sym_PIPE_PIPE])]),
     (51684, 10, [(ACTIONS 3, 1, [anon_sym_SLASH_SLASH]), (ACTIONS 5, 1,
       [anon_sym_SLASH_STAR]), (ACTIONS 7, 1, [anon_sym_SLASH_SLASH_SLASH]), (ACTIONS 9, 1,
       [sym__block_comment]), (ACTIONS 11, 1, [sym__documentation_block_comment]), (ACTIONS 2866,
       2, [anon_sym_LBRACK, anon_sym_LPAREN]), (STATE 1099, 2, [sym_comment,
       sym_documentation_comment]), (ACTIONS 2869, 5, [anon_sym_QMARK, anon_sym_LT,
       anon_sym_BANG, anon_sym_DOT, anon_sym_QMARK_DOT]), (ACTIONS 1682, 7, [anon_sym_GT,
       anon_sym_PIPE, anon_sym_AMP, anon_sym_GT_GT, anon_sym_SLASH, anon_sym_as,
       anon_sym_async]), (ACTIONS 1684, 22, [anon_sym_LBRACE, anon_sym_COMMA,
       anon_sym_QMARK_QMARK, sym_equality_operator, anon_sym_LT_EQ, anon_sym_GT_EQ,
       anon_sym_CARET, anon_sym_LT_LT, anon_sym_GT_GT_GT, sym__additive_operator, anon_sym_STAR,
       anon_sym_PERCENT, anon_sym_TILDE_SLASH, anon_sym_is, anon_sym_DOT_DOT,
       anon_sym_QMARK_DOT_DOT, anon_sym_SEMI, anon_sym_EQ_GT, anon_sym_async_STAR,
       anon_sym_sync_STAR, anon_sym_AMP_AMP, anon_sym_PIPE_PIPE])])]"

lemma small_run_379: "small_run 1098 51624 ts_small_parse_table_379 1100 51748"
  by (simp add: small_simps ts_small_parse_table_379_def)

definition ts_small_parse_table_380 :: "small_group list" where
  "ts_small_parse_table_380 = [
     (51748, 10, [(ACTIONS 3, 1, [anon_sym_SLASH_SLASH]), (ACTIONS 5, 1,
       [anon_sym_SLASH_STAR]), (ACTIONS 7, 1, [anon_sym_SLASH_SLASH_SLASH]), (ACTIONS 9, 1,
       [sym__block_comment]), (ACTIONS 11, 1, [sym__documentation_block_comment]), (ACTIONS 2856,
       2, [anon_sym_LBRACK, anon_sym_LPAREN]), (STATE 1100, 2, [sym_comment,
       sym_documentation_comment]), (ACTIONS 2859, 5, [anon_sym_QMARK, anon_sym_LT,
       anon_sym_BANG, anon_sym_DOT, anon_sym_QMARK_DOT]), (ACTIONS 1674, 7, [anon_sym_GT,
       anon_sym_PIPE, anon_sym_AMP, anon_sym_GT_GT, anon_sym_SLASH, anon_sym_as,
       anon_sym_async]), (ACTIONS 1676, 22, [anon_sym_LBRACE, anon_sym_COMMA,
       anon_sym_QMARK_QMARK, sym_equality_operator, anon_sym_LT_EQ, anon_sym_GT_EQ,
       anon_sym_CARET, anon_sym_LT_LT, anon_sym_GT_GT_GT, sym__additive_operator, anon_sym_STAR,
       anon_sym_PERCENT, anon_sym_TILDE_SLASH, anon_sym_is, anon_sym_DOT_DOT,
       anon_sym_QMARK_DOT_DOT, anon_sym_SEMI, anon_sym_EQ_GT, anon_sym_async_STAR,
       anon_sym_sync_STAR, anon_sym_AMP_AMP, anon_sym_PIPE_PIPE])]),
     (51812, 11, [(ACTIONS 3, 1, [anon_sym_SLASH_SLASH]), (ACTIONS 5, 1,
       [anon_sym_SLASH_STAR]), (ACTIONS 7, 1, [anon_sym_SLASH_SLASH_SLASH]), (ACTIONS 9, 1,
       [sym__block_comment]), (ACTIONS 11, 1, [sym__documentation_block_comment]), (ACTIONS 1672,
       2, [anon_sym_LBRACK, anon_sym_LPAREN]), (ACTIONS 2859, 2, [anon_sym_QMARK, anon_sym_LT]),
       (STATE 1101, 2, [sym_comment, sym_documentation_comment]), (ACTIONS 1678, 3,
       [anon_sym_BANG, anon_sym_DOT, anon_sym_QMARK_DOT]), (ACTIONS 1674, 7, [anon_sym_GT,
       anon_sym_PIPE, anon_sym_AMP, anon_sym_GT_GT, anon_sym_SLASH, anon_sym_as,
       anon_sym_async]), (ACTIONS 1676, 22, [anon_sym_LBRACE, anon_sym_COMMA,
       anon_sym_QMARK_QMARK, sym_equality_operator, anon_sym_LT_EQ, anon_sym_GT_EQ,
       anon_sym_CARET, anon_sym_LT_LT, anon_sym_GT_GT_GT, sym__additive_operator, anon_sym_STAR,
       anon_sym_PERCENT, anon_sym_TILDE_SLASH, anon_sym_is, anon_sym_DOT_DOT,
       anon_sym_QMARK_DOT_DOT, anon_sym_SEMI, anon_sym_EQ_GT, anon_sym_async_STAR,
       anon_sym_sync_STAR, anon_sym_AMP_AMP, anon_sym_PIPE_PIPE])])]"

lemma small_run_380: "small_run 1100 51748 ts_small_parse_table_380 1102 51878"
  by (simp add: small_simps ts_small_parse_table_380_def)

definition ts_small_parse_table_381 :: "small_group list" where
  "ts_small_parse_table_381 = [
     (51878, 8, [(ACTIONS 3, 1, [anon_sym_SLASH_SLASH]), (ACTIONS 5, 1, [anon_sym_SLASH_STAR]),
       (ACTIONS 7, 1, [anon_sym_SLASH_SLASH_SLASH]), (ACTIONS 9, 1, [sym__block_comment]),
       (ACTIONS 11, 1, [sym__documentation_block_comment]), (STATE 1102, 2, [sym_comment,
       sym_documentation_comment]), (ACTIONS 1725, 6, [anon_sym_EQ, anon_sym_QMARK, anon_sym_LT,
       anon_sym_DOT, anon_sym_QMARK_DOT, anon_sym_async]), (ACTIONS 1723, 30, [anon_sym_LBRACE,
       anon_sym_RBRACE, anon_sym_LBRACK, anon_sym_COMMA, anon_sym_RBRACK, anon_sym_COLON,
       anon_sym_LPAREN, anon_sym_RPAREN, anon_sym_PLUS_EQ, anon_sym_DASH_EQ, anon_sym_STAR_EQ,
       anon_sym_SLASH_EQ, anon_sym_PERCENT_EQ, anon_sym_TILDE_SLASH_EQ, anon_sym_LT_LT_EQ,
       anon_sym_GT_GT_EQ, anon_sym_GT_GT_GT_EQ, anon_sym_AMP_EQ, anon_sym_CARET_EQ,
       anon_sym_PIPE_EQ, anon_sym_QMARK_QMARK_EQ, anon_sym_BANG, anon_sym_DOT_DOT,
       anon_sym_QMARK_DOT_DOT, anon_sym_SEMI, anon_sym_EQ_GT, anon_sym_case, anon_sym_else,
       anon_sym_async_STAR, anon_sym_sync_STAR])]),
     (51938, 8, [(ACTIONS 3, 1, [anon_sym_SLASH_SLASH]), (ACTIONS 5, 1, [anon_sym_SLASH_STAR]),
       (ACTIONS 7, 1, [anon_sym_SLASH_SLASH_SLASH]), (ACTIONS 9, 1, [sym__block_comment]),
       (ACTIONS 11, 1, [sym__documentation_block_comment]), (STATE 1103, 2, [sym_comment,
       sym_documentation_comment]), (ACTIONS 2934, 8, [anon_sym_QMARK, anon_sym_LT, anon_sym_GT,
       anon_sym_PIPE, anon_sym_AMP, anon_sym_GT_GT, anon_sym_SLASH, anon_sym_DOT]), (ACTIONS
       2932, 28, [anon_sym_RBRACE, anon_sym_LBRACK, anon_sym_COMMA, anon_sym_RBRACK,
       anon_sym_COLON, anon_sym_LPAREN, anon_sym_RPAREN, anon_sym_QMARK_QMARK,
       sym_equality_operator, anon_sym_LT_EQ, anon_sym_GT_EQ, anon_sym_CARET, anon_sym_LT_LT,
       anon_sym_GT_GT_GT, sym__additive_operator, anon_sym_STAR, anon_sym_PERCENT,
       anon_sym_TILDE_SLASH, anon_sym_is, anon_sym_as, anon_sym_DOT_DOT, anon_sym_QMARK_DOT_DOT,
       anon_sym_SEMI, anon_sym_EQ_GT, anon_sym_case, anon_sym_else, anon_sym_AMP_AMP,
       anon_sym_PIPE_PIPE])])]"

lemma small_run_381: "small_run 1102 51878 ts_small_parse_table_381 1104 51998"
  by (simp add: small_simps ts_small_parse_table_381_def)

definition ts_small_parse_table_382 :: "small_group list" where
  "ts_small_parse_table_382 = [
     (51998, 8, [(ACTIONS 3, 1, [anon_sym_SLASH_SLASH]), (ACTIONS 5, 1, [anon_sym_SLASH_STAR]),
       (ACTIONS 7, 1, [anon_sym_SLASH_SLASH_SLASH]), (ACTIONS 9, 1, [sym__block_comment]),
       (ACTIONS 11, 1, [sym__documentation_block_comment]), (STATE 1104, 2, [sym_comment,
       sym_documentation_comment]), (ACTIONS 2994, 12, [anon_sym_QMARK, anon_sym_LT, anon_sym_GT,
       anon_sym_PIPE, anon_sym_AMP, anon_sym_GT_GT, anon_sym_SLASH, anon_sym_BANG, anon_sym_as,
       anon_sym_DOT, anon_sym_QMARK_DOT, anon_sym_async]), (ACTIONS 2992, 24, [anon_sym_LBRACE,
       anon_sym_LBRACK, anon_sym_COMMA, anon_sym_LPAREN, anon_sym_QMARK_QMARK,
       sym_equality_operator, anon_sym_LT_EQ, anon_sym_GT_EQ, anon_sym_CARET, anon_sym_LT_LT,
       anon_sym_GT_GT_GT, sym__additive_operator, anon_sym_STAR, anon_sym_PERCENT,
       anon_sym_TILDE_SLASH, anon_sym_is, anon_sym_DOT_DOT, anon_sym_QMARK_DOT_DOT,
       anon_sym_SEMI, anon_sym_EQ_GT, anon_sym_async_STAR, anon_sym_sync_STAR, anon_sym_AMP_AMP,
       anon_sym_PIPE_PIPE])]),
     (52058, 8, [(ACTIONS 3, 1, [anon_sym_SLASH_SLASH]), (ACTIONS 5, 1, [anon_sym_SLASH_STAR]),
       (ACTIONS 7, 1, [anon_sym_SLASH_SLASH_SLASH]), (ACTIONS 9, 1, [sym__block_comment]),
       (ACTIONS 11, 1, [sym__documentation_block_comment]), (STATE 1105, 2, [sym_comment,
       sym_documentation_comment]), (ACTIONS 1686, 12, [anon_sym_QMARK, anon_sym_LT, anon_sym_GT,
       anon_sym_PIPE, anon_sym_AMP, anon_sym_GT_GT, anon_sym_SLASH, anon_sym_BANG, anon_sym_as,
       anon_sym_DOT, anon_sym_QMARK_DOT, anon_sym_async]), (ACTIONS 1680, 24, [anon_sym_LBRACE,
       anon_sym_LBRACK, anon_sym_COMMA, anon_sym_LPAREN, anon_sym_QMARK_QMARK,
       sym_equality_operator, anon_sym_LT_EQ, anon_sym_GT_EQ, anon_sym_CARET, anon_sym_LT_LT,
       anon_sym_GT_GT_GT, sym__additive_operator, anon_sym_STAR, anon_sym_PERCENT,
       anon_sym_TILDE_SLASH, anon_sym_is, anon_sym_DOT_DOT, anon_sym_QMARK_DOT_DOT,
       anon_sym_SEMI, anon_sym_EQ_GT, anon_sym_async_STAR, anon_sym_sync_STAR, anon_sym_AMP_AMP,
       anon_sym_PIPE_PIPE])])]"

lemma small_run_382: "small_run 1104 51998 ts_small_parse_table_382 1106 52118"
  by (simp add: small_simps ts_small_parse_table_382_def)

definition ts_small_parse_table_383 :: "small_group list" where
  "ts_small_parse_table_383 = [
     (52118, 8, [(ACTIONS 3, 1, [anon_sym_SLASH_SLASH]), (ACTIONS 5, 1, [anon_sym_SLASH_STAR]),
       (ACTIONS 7, 1, [anon_sym_SLASH_SLASH_SLASH]), (ACTIONS 9, 1, [sym__block_comment]),
       (ACTIONS 11, 1, [sym__documentation_block_comment]), (STATE 1106, 2, [sym_comment,
       sym_documentation_comment]), (ACTIONS 2950, 12, [anon_sym_QMARK, anon_sym_LT, anon_sym_GT,
       anon_sym_PIPE, anon_sym_AMP, anon_sym_GT_GT, anon_sym_SLASH, anon_sym_BANG, anon_sym_as,
       anon_sym_DOT, anon_sym_QMARK_DOT, anon_sym_async]), (ACTIONS 2948, 24, [anon_sym_LBRACE,
       anon_sym_LBRACK, anon_sym_COMMA, anon_sym_LPAREN, anon_sym_QMARK_QMARK,
       sym_equality_operator, anon_sym_LT_EQ, anon_sym_GT_EQ, anon_sym_CARET, anon_sym_LT_LT,
       anon_sym_GT_GT_GT, sym__additive_operator, anon_sym_STAR, anon_sym_PERCENT,
       anon_sym_TILDE_SLASH, anon_sym_is, anon_sym_DOT_DOT, anon_sym_QMARK_DOT_DOT,
       anon_sym_SEMI, anon_sym_EQ_GT, anon_sym_async_STAR, anon_sym_sync_STAR, anon_sym_AMP_AMP,
       anon_sym_PIPE_PIPE])]),
     (52178, 11, [(ACTIONS 3, 1, [anon_sym_SLASH_SLASH]), (ACTIONS 5, 1,
       [anon_sym_SLASH_STAR]), (ACTIONS 7, 1, [anon_sym_SLASH_SLASH_SLASH]), (ACTIONS 9, 1,
       [sym__block_comment]), (ACTIONS 11, 1, [sym__documentation_block_comment]), (ACTIONS 1680,
       2, [anon_sym_LBRACK, anon_sym_LPAREN]), (ACTIONS 2869, 2, [anon_sym_QMARK, anon_sym_LT]),
       (STATE 1107, 2, [sym_comment, sym_documentation_comment]), (ACTIONS 1686, 3,
       [anon_sym_BANG, anon_sym_DOT, anon_sym_QMARK_DOT]), (ACTIONS 1682, 7, [anon_sym_GT,
       anon_sym_PIPE, anon_sym_AMP, anon_sym_GT_GT, anon_sym_SLASH, anon_sym_as,
       anon_sym_async]), (ACTIONS 1684, 22, [anon_sym_LBRACE, anon_sym_COMMA,
       anon_sym_QMARK_QMARK, sym_equality_operator, anon_sym_LT_EQ, anon_sym_GT_EQ,
       anon_sym_CARET, anon_sym_LT_LT, anon_sym_GT_GT_GT, sym__additive_operator, anon_sym_STAR,
       anon_sym_PERCENT, anon_sym_TILDE_SLASH, anon_sym_is, anon_sym_DOT_DOT,
       anon_sym_QMARK_DOT_DOT, anon_sym_SEMI, anon_sym_EQ_GT, anon_sym_async_STAR,
       anon_sym_sync_STAR, anon_sym_AMP_AMP, anon_sym_PIPE_PIPE])])]"

lemma small_run_383: "small_run 1106 52118 ts_small_parse_table_383 1108 52244"
  by (simp add: small_simps ts_small_parse_table_383_def)

definition ts_small_parse_table_384 :: "small_group list" where
  "ts_small_parse_table_384 = [
     (52244, 8, [(ACTIONS 3, 1, [anon_sym_SLASH_SLASH]), (ACTIONS 5, 1, [anon_sym_SLASH_STAR]),
       (ACTIONS 7, 1, [anon_sym_SLASH_SLASH_SLASH]), (ACTIONS 9, 1, [sym__block_comment]),
       (ACTIONS 11, 1, [sym__documentation_block_comment]), (STATE 1108, 2, [sym_comment,
       sym_documentation_comment]), (ACTIONS 1821, 12, [anon_sym_QMARK, anon_sym_LT, anon_sym_GT,
       anon_sym_PIPE, anon_sym_AMP, anon_sym_GT_GT, anon_sym_SLASH, anon_sym_BANG, anon_sym_as,
       anon_sym_DOT, anon_sym_QMARK_DOT, anon_sym_async]), (ACTIONS 1819, 24, [anon_sym_LBRACE,
       anon_sym_LBRACK, anon_sym_COMMA, anon_sym_LPAREN, anon_sym_QMARK_QMARK,
       sym_equality_operator, anon_sym_LT_EQ, anon_sym_GT_EQ, anon_sym_CARET, anon_sym_LT_LT,
       anon_sym_GT_GT_GT, sym__additive_operator, anon_sym_STAR, anon_sym_PERCENT,
       anon_sym_TILDE_SLASH, anon_sym_is, anon_sym_DOT_DOT, anon_sym_QMARK_DOT_DOT,
       anon_sym_SEMI, anon_sym_EQ_GT, anon_sym_async_STAR, anon_sym_sync_STAR, anon_sym_AMP_AMP,
       anon_sym_PIPE_PIPE])]),
     (52304, 8, [(ACTIONS 3, 1, [anon_sym_SLASH_SLASH]), (ACTIONS 5, 1, [anon_sym_SLASH_STAR]),
       (ACTIONS 7, 1, [anon_sym_SLASH_SLASH_SLASH]), (ACTIONS 9, 1, [sym__block_comment]),
       (ACTIONS 11, 1, [sym__documentation_block_comment]), (STATE 1109, 2, [sym_comment,
       sym_documentation_comment]), (ACTIONS 1729, 6, [anon_sym_EQ, anon_sym_QMARK, anon_sym_LT,
       anon_sym_DOT, anon_sym_QMARK_DOT, anon_sym_async]), (ACTIONS 1727, 30, [anon_sym_LBRACE,
       anon_sym_RBRACE, anon_sym_LBRACK, anon_sym_COMMA, anon_sym_RBRACK, anon_sym_COLON,
       anon_sym_LPAREN, anon_sym_RPAREN, anon_sym_PLUS_EQ, anon_sym_DASH_EQ, anon_sym_STAR_EQ,
       anon_sym_SLASH_EQ, anon_sym_PERCENT_EQ, anon_sym_TILDE_SLASH_EQ, anon_sym_LT_LT_EQ,
       anon_sym_GT_GT_EQ, anon_sym_GT_GT_GT_EQ, anon_sym_AMP_EQ, anon_sym_CARET_EQ,
       anon_sym_PIPE_EQ, anon_sym_QMARK_QMARK_EQ, anon_sym_BANG, anon_sym_DOT_DOT,
       anon_sym_QMARK_DOT_DOT, anon_sym_SEMI, anon_sym_EQ_GT, anon_sym_case, anon_sym_else,
       anon_sym_async_STAR, anon_sym_sync_STAR])])]"

lemma small_run_384: "small_run 1108 52244 ts_small_parse_table_384 1110 52364"
  by (simp add: small_simps ts_small_parse_table_384_def)

definition ts_small_parse_table_385 :: "small_group list" where
  "ts_small_parse_table_385 = [
     (52364, 8, [(ACTIONS 3, 1, [anon_sym_SLASH_SLASH]), (ACTIONS 5, 1, [anon_sym_SLASH_STAR]),
       (ACTIONS 7, 1, [anon_sym_SLASH_SLASH_SLASH]), (ACTIONS 9, 1, [sym__block_comment]),
       (ACTIONS 11, 1, [sym__documentation_block_comment]), (STATE 1110, 2, [sym_comment,
       sym_documentation_comment]), (ACTIONS 1697, 12, [anon_sym_QMARK, anon_sym_LT, anon_sym_GT,
       anon_sym_PIPE, anon_sym_AMP, anon_sym_GT_GT, anon_sym_SLASH, anon_sym_BANG, anon_sym_as,
       anon_sym_DOT, anon_sym_QMARK_DOT, anon_sym_async]), (ACTIONS 1695, 24, [anon_sym_LBRACE,
       anon_sym_LBRACK, anon_sym_COMMA, anon_sym_LPAREN, anon_sym_QMARK_QMARK,
       sym_equality_operator, anon_sym_LT_EQ, anon_sym_GT_EQ, anon_sym_CARET, anon_sym_LT_LT,
       anon_sym_GT_GT_GT, sym__additive_operator, anon_sym_STAR, anon_sym_PERCENT,
       anon_sym_TILDE_SLASH, anon_sym_is, anon_sym_DOT_DOT, anon_sym_QMARK_DOT_DOT,
       anon_sym_SEMI, anon_sym_EQ_GT, anon_sym_async_STAR, anon_sym_sync_STAR, anon_sym_AMP_AMP,
       anon_sym_PIPE_PIPE])]),
     (52424, 8, [(ACTIONS 3, 1, [anon_sym_SLASH_SLASH]), (ACTIONS 5, 1, [anon_sym_SLASH_STAR]),
       (ACTIONS 7, 1, [anon_sym_SLASH_SLASH_SLASH]), (ACTIONS 9, 1, [sym__block_comment]),
       (ACTIONS 11, 1, [sym__documentation_block_comment]), (STATE 1111, 2, [sym_comment,
       sym_documentation_comment]), (ACTIONS 2918, 12, [anon_sym_QMARK, anon_sym_LT, anon_sym_GT,
       anon_sym_PIPE, anon_sym_AMP, anon_sym_GT_GT, anon_sym_SLASH, anon_sym_BANG, anon_sym_as,
       anon_sym_DOT, anon_sym_QMARK_DOT, anon_sym_async]), (ACTIONS 2916, 24, [anon_sym_LBRACE,
       anon_sym_LBRACK, anon_sym_COMMA, anon_sym_LPAREN, anon_sym_QMARK_QMARK,
       sym_equality_operator, anon_sym_LT_EQ, anon_sym_GT_EQ, anon_sym_CARET, anon_sym_LT_LT,
       anon_sym_GT_GT_GT, sym__additive_operator, anon_sym_STAR, anon_sym_PERCENT,
       anon_sym_TILDE_SLASH, anon_sym_is, anon_sym_DOT_DOT, anon_sym_QMARK_DOT_DOT,
       anon_sym_SEMI, anon_sym_EQ_GT, anon_sym_async_STAR, anon_sym_sync_STAR, anon_sym_AMP_AMP,
       anon_sym_PIPE_PIPE])])]"

lemma small_run_385: "small_run 1110 52364 ts_small_parse_table_385 1112 52484"
  by (simp add: small_simps ts_small_parse_table_385_def)

definition ts_small_parse_table_386 :: "small_group list" where
  "ts_small_parse_table_386 = [
     (52484, 8, [(ACTIONS 3, 1, [anon_sym_SLASH_SLASH]), (ACTIONS 5, 1, [anon_sym_SLASH_STAR]),
       (ACTIONS 7, 1, [anon_sym_SLASH_SLASH_SLASH]), (ACTIONS 9, 1, [sym__block_comment]),
       (ACTIONS 11, 1, [sym__documentation_block_comment]), (STATE 1112, 2, [sym_comment,
       sym_documentation_comment]), (ACTIONS 1659, 12, [anon_sym_QMARK, anon_sym_LT, anon_sym_GT,
       anon_sym_PIPE, anon_sym_AMP, anon_sym_GT_GT, anon_sym_SLASH, anon_sym_BANG, anon_sym_as,
       anon_sym_DOT, anon_sym_QMARK_DOT, anon_sym_async]), (ACTIONS 1657, 24, [anon_sym_LBRACE,
       anon_sym_LBRACK, anon_sym_COMMA, anon_sym_LPAREN, anon_sym_QMARK_QMARK,
       sym_equality_operator, anon_sym_LT_EQ, anon_sym_GT_EQ, anon_sym_CARET, anon_sym_LT_LT,
       anon_sym_GT_GT_GT, sym__additive_operator, anon_sym_STAR, anon_sym_PERCENT,
       anon_sym_TILDE_SLASH, anon_sym_is, anon_sym_DOT_DOT, anon_sym_QMARK_DOT_DOT,
       anon_sym_SEMI, anon_sym_EQ_GT, anon_sym_async_STAR, anon_sym_sync_STAR, anon_sym_AMP_AMP,
       anon_sym_PIPE_PIPE])]),
     (52544, 8, [(ACTIONS 3, 1, [anon_sym_SLASH_SLASH]), (ACTIONS 5, 1, [anon_sym_SLASH_STAR]),
       (ACTIONS 7, 1, [anon_sym_SLASH_SLASH_SLASH]), (ACTIONS 9, 1, [sym__block_comment]),
       (ACTIONS 11, 1, [sym__documentation_block_comment]), (STATE 1113, 2, [sym_comment,
       sym_documentation_comment]), (ACTIONS 1663, 12, [anon_sym_QMARK, anon_sym_LT, anon_sym_GT,
       anon_sym_PIPE, anon_sym_AMP, anon_sym_GT_GT, anon_sym_SLASH, anon_sym_BANG, anon_sym_as,
       anon_sym_DOT, anon_sym_QMARK_DOT, anon_sym_async]), (ACTIONS 1661, 24, [anon_sym_LBRACE,
       anon_sym_LBRACK, anon_sym_COMMA, anon_sym_LPAREN, anon_sym_QMARK_QMARK,
       sym_equality_operator, anon_sym_LT_EQ, anon_sym_GT_EQ, anon_sym_CARET, anon_sym_LT_LT,
       anon_sym_GT_GT_GT, sym__additive_operator, anon_sym_STAR, anon_sym_PERCENT,
       anon_sym_TILDE_SLASH, anon_sym_is, anon_sym_DOT_DOT, anon_sym_QMARK_DOT_DOT,
       anon_sym_SEMI, anon_sym_EQ_GT, anon_sym_async_STAR, anon_sym_sync_STAR, anon_sym_AMP_AMP,
       anon_sym_PIPE_PIPE])])]"

lemma small_run_386: "small_run 1112 52484 ts_small_parse_table_386 1114 52604"
  by (simp add: small_simps ts_small_parse_table_386_def)

definition ts_small_parse_table_387 :: "small_group list" where
  "ts_small_parse_table_387 = [
     (52604, 8, [(ACTIONS 3, 1, [anon_sym_SLASH_SLASH]), (ACTIONS 5, 1, [anon_sym_SLASH_STAR]),
       (ACTIONS 7, 1, [anon_sym_SLASH_SLASH_SLASH]), (ACTIONS 9, 1, [sym__block_comment]),
       (ACTIONS 11, 1, [sym__documentation_block_comment]), (STATE 1114, 2, [sym_comment,
       sym_documentation_comment]), (ACTIONS 3080, 12, [anon_sym_QMARK, anon_sym_LT, anon_sym_GT,
       anon_sym_PIPE, anon_sym_AMP, anon_sym_GT_GT, anon_sym_SLASH, anon_sym_BANG, anon_sym_as,
       anon_sym_DOT, anon_sym_QMARK_DOT, anon_sym_async]), (ACTIONS 3078, 24, [anon_sym_LBRACE,
       anon_sym_LBRACK, anon_sym_COMMA, anon_sym_LPAREN, anon_sym_QMARK_QMARK,
       sym_equality_operator, anon_sym_LT_EQ, anon_sym_GT_EQ, anon_sym_CARET, anon_sym_LT_LT,
       anon_sym_GT_GT_GT, sym__additive_operator, anon_sym_STAR, anon_sym_PERCENT,
       anon_sym_TILDE_SLASH, anon_sym_is, anon_sym_DOT_DOT, anon_sym_QMARK_DOT_DOT,
       anon_sym_SEMI, anon_sym_EQ_GT, anon_sym_async_STAR, anon_sym_sync_STAR, anon_sym_AMP_AMP,
       anon_sym_PIPE_PIPE])]),
     (52664, 8, [(ACTIONS 3, 1, [anon_sym_SLASH_SLASH]), (ACTIONS 5, 1, [anon_sym_SLASH_STAR]),
       (ACTIONS 7, 1, [anon_sym_SLASH_SLASH_SLASH]), (ACTIONS 9, 1, [sym__block_comment]),
       (ACTIONS 11, 1, [sym__documentation_block_comment]), (STATE 1115, 2, [sym_comment,
       sym_documentation_comment]), (ACTIONS 3068, 12, [anon_sym_QMARK, anon_sym_LT, anon_sym_GT,
       anon_sym_PIPE, anon_sym_AMP, anon_sym_GT_GT, anon_sym_SLASH, anon_sym_BANG, anon_sym_as,
       anon_sym_DOT, anon_sym_QMARK_DOT, anon_sym_async]), (ACTIONS 3066, 24, [anon_sym_LBRACE,
       anon_sym_LBRACK, anon_sym_COMMA, anon_sym_LPAREN, anon_sym_QMARK_QMARK,
       sym_equality_operator, anon_sym_LT_EQ, anon_sym_GT_EQ, anon_sym_CARET, anon_sym_LT_LT,
       anon_sym_GT_GT_GT, sym__additive_operator, anon_sym_STAR, anon_sym_PERCENT,
       anon_sym_TILDE_SLASH, anon_sym_is, anon_sym_DOT_DOT, anon_sym_QMARK_DOT_DOT,
       anon_sym_SEMI, anon_sym_EQ_GT, anon_sym_async_STAR, anon_sym_sync_STAR, anon_sym_AMP_AMP,
       anon_sym_PIPE_PIPE])])]"

lemma small_run_387: "small_run 1114 52604 ts_small_parse_table_387 1116 52724"
  by (simp add: small_simps ts_small_parse_table_387_def)

definition ts_small_parse_table_388 :: "small_group list" where
  "ts_small_parse_table_388 = [
     (52724, 10, [(ACTIONS 3, 1, [anon_sym_SLASH_SLASH]), (ACTIONS 5, 1,
       [anon_sym_SLASH_STAR]), (ACTIONS 7, 1, [anon_sym_SLASH_SLASH_SLASH]), (ACTIONS 9, 1,
       [sym__block_comment]), (ACTIONS 11, 1, [sym__documentation_block_comment]), (ACTIONS 2826,
       2, [anon_sym_LBRACK, anon_sym_LPAREN]), (STATE 1116, 2, [sym_comment,
       sym_documentation_comment]), (ACTIONS 2829, 5, [anon_sym_QMARK, anon_sym_LT,
       anon_sym_BANG, anon_sym_DOT, anon_sym_QMARK_DOT]), (ACTIONS 1699, 7, [anon_sym_GT,
       anon_sym_PIPE, anon_sym_AMP, anon_sym_GT_GT, anon_sym_SLASH, anon_sym_as,
       anon_sym_async]), (ACTIONS 1701, 22, [anon_sym_LBRACE, anon_sym_COMMA,
       anon_sym_QMARK_QMARK, sym_equality_operator, anon_sym_LT_EQ, anon_sym_GT_EQ,
       anon_sym_CARET, anon_sym_LT_LT, anon_sym_GT_GT_GT, sym__additive_operator, anon_sym_STAR,
       anon_sym_PERCENT, anon_sym_TILDE_SLASH, anon_sym_is, anon_sym_DOT_DOT,
       anon_sym_QMARK_DOT_DOT, anon_sym_SEMI, anon_sym_EQ_GT, anon_sym_async_STAR,
       anon_sym_sync_STAR, anon_sym_AMP_AMP, anon_sym_PIPE_PIPE])]),
     (52788, 8, [(ACTIONS 3, 1, [anon_sym_SLASH_SLASH]), (ACTIONS 5, 1, [anon_sym_SLASH_STAR]),
       (ACTIONS 7, 1, [anon_sym_SLASH_SLASH_SLASH]), (ACTIONS 9, 1, [sym__block_comment]),
       (ACTIONS 11, 1, [sym__documentation_block_comment]), (STATE 1117, 2, [sym_comment,
       sym_documentation_comment]), (ACTIONS 2473, 12, [anon_sym_QMARK, anon_sym_LT, anon_sym_GT,
       anon_sym_PIPE, anon_sym_AMP, anon_sym_GT_GT, anon_sym_SLASH, anon_sym_BANG, anon_sym_as,
       anon_sym_DOT, anon_sym_QMARK_DOT, anon_sym_async]), (ACTIONS 2471, 24, [anon_sym_LBRACE,
       anon_sym_LBRACK, anon_sym_COMMA, anon_sym_LPAREN, anon_sym_QMARK_QMARK,
       sym_equality_operator, anon_sym_LT_EQ, anon_sym_GT_EQ, anon_sym_CARET, anon_sym_LT_LT,
       anon_sym_GT_GT_GT, sym__additive_operator, anon_sym_STAR, anon_sym_PERCENT,
       anon_sym_TILDE_SLASH, anon_sym_is, anon_sym_DOT_DOT, anon_sym_QMARK_DOT_DOT,
       anon_sym_SEMI, anon_sym_EQ_GT, anon_sym_async_STAR, anon_sym_sync_STAR, anon_sym_AMP_AMP,
       anon_sym_PIPE_PIPE])])]"

lemma small_run_388: "small_run 1116 52724 ts_small_parse_table_388 1118 52848"
  by (simp add: small_simps ts_small_parse_table_388_def)

definition ts_small_parse_table_389 :: "small_group list" where
  "ts_small_parse_table_389 = [
     (52848, 8, [(ACTIONS 3, 1, [anon_sym_SLASH_SLASH]), (ACTIONS 5, 1, [anon_sym_SLASH_STAR]),
       (ACTIONS 7, 1, [anon_sym_SLASH_SLASH_SLASH]), (ACTIONS 9, 1, [sym__block_comment]),
       (ACTIONS 11, 1, [sym__documentation_block_comment]), (STATE 1118, 2, [sym_comment,
       sym_documentation_comment]), (ACTIONS 2974, 12, [anon_sym_QMARK, anon_sym_LT, anon_sym_GT,
       anon_sym_PIPE, anon_sym_AMP, anon_sym_GT_GT, anon_sym_SLASH, anon_sym_BANG, anon_sym_as,
       anon_sym_DOT, anon_sym_QMARK_DOT, anon_sym_async]), (ACTIONS 2972, 24, [anon_sym_LBRACE,
       anon_sym_LBRACK, anon_sym_COMMA, anon_sym_LPAREN, anon_sym_QMARK_QMARK,
       sym_equality_operator, anon_sym_LT_EQ, anon_sym_GT_EQ, anon_sym_CARET, anon_sym_LT_LT,
       anon_sym_GT_GT_GT, sym__additive_operator, anon_sym_STAR, anon_sym_PERCENT,
       anon_sym_TILDE_SLASH, anon_sym_is, anon_sym_DOT_DOT, anon_sym_QMARK_DOT_DOT,
       anon_sym_SEMI, anon_sym_EQ_GT, anon_sym_async_STAR, anon_sym_sync_STAR, anon_sym_AMP_AMP,
       anon_sym_PIPE_PIPE])]),
     (52908, 8, [(ACTIONS 3, 1, [anon_sym_SLASH_SLASH]), (ACTIONS 5, 1, [anon_sym_SLASH_STAR]),
       (ACTIONS 7, 1, [anon_sym_SLASH_SLASH_SLASH]), (ACTIONS 9, 1, [sym__block_comment]),
       (ACTIONS 11, 1, [sym__documentation_block_comment]), (STATE 1119, 2, [sym_comment,
       sym_documentation_comment]), (ACTIONS 3030, 12, [anon_sym_QMARK, anon_sym_LT, anon_sym_GT,
       anon_sym_PIPE, anon_sym_AMP, anon_sym_GT_GT, anon_sym_SLASH, anon_sym_BANG, anon_sym_as,
       anon_sym_DOT, anon_sym_QMARK_DOT, anon_sym_async]), (ACTIONS 3028, 24, [anon_sym_LBRACE,
       anon_sym_LBRACK, anon_sym_COMMA, anon_sym_LPAREN, anon_sym_QMARK_QMARK,
       sym_equality_operator, anon_sym_LT_EQ, anon_sym_GT_EQ, anon_sym_CARET, anon_sym_LT_LT,
       anon_sym_GT_GT_GT, sym__additive_operator, anon_sym_STAR, anon_sym_PERCENT,
       anon_sym_TILDE_SLASH, anon_sym_is, anon_sym_DOT_DOT, anon_sym_QMARK_DOT_DOT,
       anon_sym_SEMI, anon_sym_EQ_GT, anon_sym_async_STAR, anon_sym_sync_STAR, anon_sym_AMP_AMP,
       anon_sym_PIPE_PIPE])])]"

lemma small_run_389: "small_run 1118 52848 ts_small_parse_table_389 1120 52968"
  by (simp add: small_simps ts_small_parse_table_389_def)

definition ts_small_parse_table_390 :: "small_group list" where
  "ts_small_parse_table_390 = [
     (52968, 8, [(ACTIONS 3, 1, [anon_sym_SLASH_SLASH]), (ACTIONS 5, 1, [anon_sym_SLASH_STAR]),
       (ACTIONS 7, 1, [anon_sym_SLASH_SLASH_SLASH]), (ACTIONS 9, 1, [sym__block_comment]),
       (ACTIONS 11, 1, [sym__documentation_block_comment]), (STATE 1120, 2, [sym_comment,
       sym_documentation_comment]), (ACTIONS 3088, 12, [anon_sym_QMARK, anon_sym_LT, anon_sym_GT,
       anon_sym_PIPE, anon_sym_AMP, anon_sym_GT_GT, anon_sym_SLASH, anon_sym_BANG, anon_sym_as,
       anon_sym_DOT, anon_sym_QMARK_DOT, anon_sym_async]), (ACTIONS 3086, 24, [anon_sym_LBRACE,
       anon_sym_LBRACK, anon_sym_COMMA, anon_sym_LPAREN, anon_sym_QMARK_QMARK,
       sym_equality_operator, anon_sym_LT_EQ, anon_sym_GT_EQ, anon_sym_CARET, anon_sym_LT_LT,
       anon_sym_GT_GT_GT, sym__additive_operator, anon_sym_STAR, anon_sym_PERCENT,
       anon_sym_TILDE_SLASH, anon_sym_is, anon_sym_DOT_DOT, anon_sym_QMARK_DOT_DOT,
       anon_sym_SEMI, anon_sym_EQ_GT, anon_sym_async_STAR, anon_sym_sync_STAR, anon_sym_AMP_AMP,
       anon_sym_PIPE_PIPE])]),
     (53028, 13, [(ACTIONS 3, 1, [anon_sym_SLASH_SLASH]), (ACTIONS 5, 1,
       [anon_sym_SLASH_STAR]), (ACTIONS 7, 1, [anon_sym_SLASH_SLASH_SLASH]), (ACTIONS 9, 1,
       [sym__block_comment]), (ACTIONS 11, 1, [sym__documentation_block_comment]), (ACTIONS 2477,
       1, [anon_sym_SLASH]), (STATE 424, 1, [sym_multiplicative_operator]), (STATE 1177, 1,
       [aux_sym_multiplicative_expression_repeat1]), (STATE 1416, 1,
       [sym__multiplicative_operator]), (STATE 1121, 2, [sym_comment,
       sym_documentation_comment]), (ACTIONS 2475, 3, [anon_sym_STAR, anon_sym_PERCENT,
       anon_sym_TILDE_SLASH]), (ACTIONS 2473, 6, [anon_sym_QMARK, anon_sym_LT, anon_sym_GT,
       anon_sym_PIPE, anon_sym_AMP, anon_sym_GT_GT]), (ACTIONS 2471, 23, [anon_sym_RBRACE,
       anon_sym_COMMA, anon_sym_RBRACK, anon_sym_COLON, anon_sym_RPAREN, anon_sym_QMARK_QMARK,
       sym_equality_operator, anon_sym_LT_EQ, anon_sym_GT_EQ, anon_sym_CARET, anon_sym_LT_LT,
       anon_sym_GT_GT_GT, sym__additive_operator, anon_sym_is, anon_sym_as, anon_sym_DOT_DOT,
       anon_sym_QMARK_DOT_DOT, anon_sym_SEMI, anon_sym_EQ_GT, anon_sym_case, anon_sym_else,
       anon_sym_AMP_AMP, anon_sym_PIPE_PIPE])])]"

lemma small_run_390: "small_run 1120 52968 ts_small_parse_table_390 1122 53098"
  by (simp add: small_simps ts_small_parse_table_390_def)

definition ts_small_parse_table_391 :: "small_group list" where
  "ts_small_parse_table_391 = [
     (53098, 8, [(ACTIONS 3, 1, [anon_sym_SLASH_SLASH]), (ACTIONS 5, 1, [anon_sym_SLASH_STAR]),
       (ACTIONS 7, 1, [anon_sym_SLASH_SLASH_SLASH]), (ACTIONS 9, 1, [sym__block_comment]),
       (ACTIONS 11, 1, [sym__documentation_block_comment]), (STATE 1122, 2, [sym_comment,
       sym_documentation_comment]), (ACTIONS 1663, 6, [anon_sym_EQ, anon_sym_QMARK, anon_sym_LT,
       anon_sym_DOT, anon_sym_QMARK_DOT, anon_sym_async]), (ACTIONS 1661, 30, [anon_sym_LBRACE,
       anon_sym_RBRACE, anon_sym_LBRACK, anon_sym_COMMA, anon_sym_RBRACK, anon_sym_COLON,
       anon_sym_LPAREN, anon_sym_RPAREN, anon_sym_PLUS_EQ, anon_sym_DASH_EQ, anon_sym_STAR_EQ,
       anon_sym_SLASH_EQ, anon_sym_PERCENT_EQ, anon_sym_TILDE_SLASH_EQ, anon_sym_LT_LT_EQ,
       anon_sym_GT_GT_EQ, anon_sym_GT_GT_GT_EQ, anon_sym_AMP_EQ, anon_sym_CARET_EQ,
       anon_sym_PIPE_EQ, anon_sym_QMARK_QMARK_EQ, anon_sym_BANG, anon_sym_DOT_DOT,
       anon_sym_QMARK_DOT_DOT, anon_sym_SEMI, anon_sym_EQ_GT, anon_sym_case, anon_sym_else,
       anon_sym_async_STAR, anon_sym_sync_STAR])]),
     (53158, 8, [(ACTIONS 3, 1, [anon_sym_SLASH_SLASH]), (ACTIONS 5, 1, [anon_sym_SLASH_STAR]),
       (ACTIONS 7, 1, [anon_sym_SLASH_SLASH_SLASH]), (ACTIONS 9, 1, [sym__block_comment]),
       (ACTIONS 11, 1, [sym__documentation_block_comment]), (STATE 1123, 2, [sym_comment,
       sym_documentation_comment]), (ACTIONS 1155, 12, [anon_sym_QMARK, anon_sym_LT, anon_sym_GT,
       anon_sym_PIPE, anon_sym_AMP, anon_sym_GT_GT, anon_sym_SLASH, anon_sym_BANG, anon_sym_as,
       anon_sym_DOT, anon_sym_QMARK_DOT, anon_sym_async]), (ACTIONS 1153, 24, [anon_sym_LBRACE,
       anon_sym_LBRACK, anon_sym_COMMA, anon_sym_LPAREN, anon_sym_QMARK_QMARK,
       sym_equality_operator, anon_sym_LT_EQ, anon_sym_GT_EQ, anon_sym_CARET, anon_sym_LT_LT,
       anon_sym_GT_GT_GT, sym__additive_operator, anon_sym_STAR, anon_sym_PERCENT,
       anon_sym_TILDE_SLASH, anon_sym_is, anon_sym_DOT_DOT, anon_sym_QMARK_DOT_DOT,
       anon_sym_SEMI, anon_sym_EQ_GT, anon_sym_async_STAR, anon_sym_sync_STAR, anon_sym_AMP_AMP,
       anon_sym_PIPE_PIPE])])]"

lemma small_run_391: "small_run 1122 53098 ts_small_parse_table_391 1124 53218"
  by (simp add: small_simps ts_small_parse_table_391_def)

definition ts_small_parse_table_392 :: "small_group list" where
  "ts_small_parse_table_392 = [
     (53218, 8, [(ACTIONS 3, 1, [anon_sym_SLASH_SLASH]), (ACTIONS 5, 1, [anon_sym_SLASH_STAR]),
       (ACTIONS 7, 1, [anon_sym_SLASH_SLASH_SLASH]), (ACTIONS 9, 1, [sym__block_comment]),
       (ACTIONS 11, 1, [sym__documentation_block_comment]), (STATE 1124, 2, [sym_comment,
       sym_documentation_comment]), (ACTIONS 1659, 6, [anon_sym_EQ, anon_sym_QMARK, anon_sym_LT,
       anon_sym_DOT, anon_sym_QMARK_DOT, anon_sym_async]), (ACTIONS 1657, 30, [anon_sym_LBRACE,
       anon_sym_RBRACE, anon_sym_LBRACK, anon_sym_COMMA, anon_sym_RBRACK, anon_sym_COLON,
       anon_sym_LPAREN, anon_sym_RPAREN, anon_sym_PLUS_EQ, anon_sym_DASH_EQ, anon_sym_STAR_EQ,
       anon_sym_SLASH_EQ, anon_sym_PERCENT_EQ, anon_sym_TILDE_SLASH_EQ, anon_sym_LT_LT_EQ,
       anon_sym_GT_GT_EQ, anon_sym_GT_GT_GT_EQ, anon_sym_AMP_EQ, anon_sym_CARET_EQ,
       anon_sym_PIPE_EQ, anon_sym_QMARK_QMARK_EQ, anon_sym_BANG, anon_sym_DOT_DOT,
       anon_sym_QMARK_DOT_DOT, anon_sym_SEMI, anon_sym_EQ_GT, anon_sym_case, anon_sym_else,
       anon_sym_async_STAR, anon_sym_sync_STAR])]),
     (53278, 8, [(ACTIONS 3, 1, [anon_sym_SLASH_SLASH]), (ACTIONS 5, 1, [anon_sym_SLASH_STAR]),
       (ACTIONS 7, 1, [anon_sym_SLASH_SLASH_SLASH]), (ACTIONS 9, 1, [sym__block_comment]),
       (ACTIONS 11, 1, [sym__documentation_block_comment]), (STATE 1125, 2, [sym_comment,
       sym_documentation_comment]), (ACTIONS 2661, 12, [anon_sym_QMARK, anon_sym_LT, anon_sym_GT,
       anon_sym_PIPE, anon_sym_AMP, anon_sym_GT_GT, anon_sym_SLASH, anon_sym_BANG, anon_sym_as,
       anon_sym_DOT, anon_sym_QMARK_DOT, anon_sym_async]), (ACTIONS 2657, 24, [anon_sym_LBRACE,
       anon_sym_LBRACK, anon_sym_COMMA, anon_sym_LPAREN, anon_sym_QMARK_QMARK,
       sym_equality_operator, anon_sym_LT_EQ, anon_sym_GT_EQ, anon_sym_CARET, anon_sym_LT_LT,
       anon_sym_GT_GT_GT, sym__additive_operator, anon_sym_STAR, anon_sym_PERCENT,
       anon_sym_TILDE_SLASH, anon_sym_is, anon_sym_DOT_DOT, anon_sym_QMARK_DOT_DOT,
       anon_sym_SEMI, anon_sym_EQ_GT, anon_sym_async_STAR, anon_sym_sync_STAR, anon_sym_AMP_AMP,
       anon_sym_PIPE_PIPE])])]"

lemma small_run_392: "small_run 1124 53218 ts_small_parse_table_392 1126 53338"
  by (simp add: small_simps ts_small_parse_table_392_def)

definition ts_small_parse_table_393 :: "small_group list" where
  "ts_small_parse_table_393 = [
     (53338, 8, [(ACTIONS 3, 1, [anon_sym_SLASH_SLASH]), (ACTIONS 5, 1, [anon_sym_SLASH_STAR]),
       (ACTIONS 7, 1, [anon_sym_SLASH_SLASH_SLASH]), (ACTIONS 9, 1, [sym__block_comment]),
       (ACTIONS 11, 1, [sym__documentation_block_comment]), (STATE 1126, 2, [sym_comment,
       sym_documentation_comment]), (ACTIONS 1739, 6, [anon_sym_EQ, anon_sym_QMARK, anon_sym_LT,
       anon_sym_DOT, anon_sym_QMARK_DOT, anon_sym_async]), (ACTIONS 1737, 30, [anon_sym_LBRACE,
       anon_sym_RBRACE, anon_sym_LBRACK, anon_sym_COMMA, anon_sym_RBRACK, anon_sym_COLON,
       anon_sym_LPAREN, anon_sym_RPAREN, anon_sym_PLUS_EQ, anon_sym_DASH_EQ, anon_sym_STAR_EQ,
       anon_sym_SLASH_EQ, anon_sym_PERCENT_EQ, anon_sym_TILDE_SLASH_EQ, anon_sym_LT_LT_EQ,
       anon_sym_GT_GT_EQ, anon_sym_GT_GT_GT_EQ, anon_sym_AMP_EQ, anon_sym_CARET_EQ,
       anon_sym_PIPE_EQ, anon_sym_QMARK_QMARK_EQ, anon_sym_BANG, anon_sym_DOT_DOT,
       anon_sym_QMARK_DOT_DOT, anon_sym_SEMI, anon_sym_EQ_GT, anon_sym_case, anon_sym_else,
       anon_sym_async_STAR, anon_sym_sync_STAR])]),
     (53398, 8, [(ACTIONS 3, 1, [anon_sym_SLASH_SLASH]), (ACTIONS 5, 1, [anon_sym_SLASH_STAR]),
       (ACTIONS 7, 1, [anon_sym_SLASH_SLASH_SLASH]), (ACTIONS 9, 1, [sym__block_comment]),
       (ACTIONS 11, 1, [sym__documentation_block_comment]), (STATE 1127, 2, [sym_comment,
       sym_documentation_comment]), (ACTIONS 2676, 12, [anon_sym_QMARK, anon_sym_LT, anon_sym_GT,
       anon_sym_PIPE, anon_sym_AMP, anon_sym_GT_GT, anon_sym_SLASH, anon_sym_BANG, anon_sym_as,
       anon_sym_DOT, anon_sym_QMARK_DOT, anon_sym_async]), (ACTIONS 2672, 24, [anon_sym_LBRACE,
       anon_sym_LBRACK, anon_sym_COMMA, anon_sym_LPAREN, anon_sym_QMARK_QMARK,
       sym_equality_operator, anon_sym_LT_EQ, anon_sym_GT_EQ, anon_sym_CARET, anon_sym_LT_LT,
       anon_sym_GT_GT_GT, sym__additive_operator, anon_sym_STAR, anon_sym_PERCENT,
       anon_sym_TILDE_SLASH, anon_sym_is, anon_sym_DOT_DOT, anon_sym_QMARK_DOT_DOT,
       anon_sym_SEMI, anon_sym_EQ_GT, anon_sym_async_STAR, anon_sym_sync_STAR, anon_sym_AMP_AMP,
       anon_sym_PIPE_PIPE])])]"

lemma small_run_393: "small_run 1126 53338 ts_small_parse_table_393 1128 53458"
  by (simp add: small_simps ts_small_parse_table_393_def)

definition ts_small_parse_table_394 :: "small_group list" where
  "ts_small_parse_table_394 = [
     (53458, 8, [(ACTIONS 3, 1, [anon_sym_SLASH_SLASH]), (ACTIONS 5, 1, [anon_sym_SLASH_STAR]),
       (ACTIONS 7, 1, [anon_sym_SLASH_SLASH_SLASH]), (ACTIONS 9, 1, [sym__block_comment]),
       (ACTIONS 11, 1, [sym__documentation_block_comment]), (STATE 1128, 2, [sym_comment,
       sym_documentation_comment]), (ACTIONS 1688, 12, [anon_sym_QMARK, anon_sym_LT, anon_sym_GT,
       anon_sym_PIPE, anon_sym_AMP, anon_sym_GT_GT, anon_sym_SLASH, anon_sym_BANG, anon_sym_as,
       anon_sym_DOT, anon_sym_QMARK_DOT, anon_sym_async]), (ACTIONS 1690, 24, [anon_sym_LBRACE,
       anon_sym_LBRACK, anon_sym_COMMA, anon_sym_LPAREN, anon_sym_QMARK_QMARK,
       sym_equality_operator, anon_sym_LT_EQ, anon_sym_GT_EQ, anon_sym_CARET, anon_sym_LT_LT,
       anon_sym_GT_GT_GT, sym__additive_operator, anon_sym_STAR, anon_sym_PERCENT,
       anon_sym_TILDE_SLASH, anon_sym_is, anon_sym_DOT_DOT, anon_sym_QMARK_DOT_DOT,
       anon_sym_SEMI, anon_sym_EQ_GT, anon_sym_async_STAR, anon_sym_sync_STAR, anon_sym_AMP_AMP,
       anon_sym_PIPE_PIPE])]),
     (53518, 8, [(ACTIONS 3, 1, [anon_sym_SLASH_SLASH]), (ACTIONS 5, 1, [anon_sym_SLASH_STAR]),
       (ACTIONS 7, 1, [anon_sym_SLASH_SLASH_SLASH]), (ACTIONS 9, 1, [sym__block_comment]),
       (ACTIONS 11, 1, [sym__documentation_block_comment]), (STATE 1129, 2, [sym_comment,
       sym_documentation_comment]), (ACTIONS 984, 12, [anon_sym_QMARK, anon_sym_LT, anon_sym_GT,
       anon_sym_PIPE, anon_sym_AMP, anon_sym_GT_GT, anon_sym_SLASH, anon_sym_BANG, anon_sym_as,
       anon_sym_DOT, anon_sym_QMARK_DOT, anon_sym_async]), (ACTIONS 980, 24, [anon_sym_LBRACE,
       anon_sym_LBRACK, anon_sym_COMMA, anon_sym_LPAREN, anon_sym_QMARK_QMARK,
       sym_equality_operator, anon_sym_LT_EQ, anon_sym_GT_EQ, anon_sym_CARET, anon_sym_LT_LT,
       anon_sym_GT_GT_GT, sym__additive_operator, anon_sym_STAR, anon_sym_PERCENT,
       anon_sym_TILDE_SLASH, anon_sym_is, anon_sym_DOT_DOT, anon_sym_QMARK_DOT_DOT,
       anon_sym_SEMI, anon_sym_EQ_GT, anon_sym_async_STAR, anon_sym_sync_STAR, anon_sym_AMP_AMP,
       anon_sym_PIPE_PIPE])])]"

lemma small_run_394: "small_run 1128 53458 ts_small_parse_table_394 1130 53578"
  by (simp add: small_simps ts_small_parse_table_394_def)

definition ts_small_parse_table_395 :: "small_group list" where
  "ts_small_parse_table_395 = [
     (53578, 8, [(ACTIONS 3, 1, [anon_sym_SLASH_SLASH]), (ACTIONS 5, 1, [anon_sym_SLASH_STAR]),
       (ACTIONS 7, 1, [anon_sym_SLASH_SLASH_SLASH]), (ACTIONS 9, 1, [sym__block_comment]),
       (ACTIONS 11, 1, [sym__documentation_block_comment]), (STATE 1130, 2, [sym_comment,
       sym_documentation_comment]), (ACTIONS 2698, 12, [anon_sym_QMARK, anon_sym_LT, anon_sym_GT,
       anon_sym_PIPE, anon_sym_AMP, anon_sym_GT_GT, anon_sym_SLASH, anon_sym_BANG, anon_sym_as,
       anon_sym_DOT, anon_sym_QMARK_DOT, anon_sym_async]), (ACTIONS 2694, 24, [anon_sym_LBRACE,
       anon_sym_LBRACK, anon_sym_COMMA, anon_sym_LPAREN, anon_sym_QMARK_QMARK,
       sym_equality_operator, anon_sym_LT_EQ, anon_sym_GT_EQ, anon_sym_CARET, anon_sym_LT_LT,
       anon_sym_GT_GT_GT, sym__additive_operator, anon_sym_STAR, anon_sym_PERCENT,
       anon_sym_TILDE_SLASH, anon_sym_is, anon_sym_DOT_DOT, anon_sym_QMARK_DOT_DOT,
       anon_sym_SEMI, anon_sym_EQ_GT, anon_sym_async_STAR, anon_sym_sync_STAR, anon_sym_AMP_AMP,
       anon_sym_PIPE_PIPE])]),
     (53638, 8, [(ACTIONS 3, 1, [anon_sym_SLASH_SLASH]), (ACTIONS 5, 1, [anon_sym_SLASH_STAR]),
       (ACTIONS 7, 1, [anon_sym_SLASH_SLASH_SLASH]), (ACTIONS 9, 1, [sym__block_comment]),
       (ACTIONS 11, 1, [sym__documentation_block_comment]), (STATE 1131, 2, [sym_comment,
       sym_documentation_comment]), (ACTIONS 2954, 12, [anon_sym_QMARK, anon_sym_LT, anon_sym_GT,
       anon_sym_PIPE, anon_sym_AMP, anon_sym_GT_GT, anon_sym_SLASH, anon_sym_BANG, anon_sym_as,
       anon_sym_DOT, anon_sym_QMARK_DOT, anon_sym_async]), (ACTIONS 2952, 24, [anon_sym_LBRACE,
       anon_sym_LBRACK, anon_sym_COMMA, anon_sym_LPAREN, anon_sym_QMARK_QMARK,
       sym_equality_operator, anon_sym_LT_EQ, anon_sym_GT_EQ, anon_sym_CARET, anon_sym_LT_LT,
       anon_sym_GT_GT_GT, sym__additive_operator, anon_sym_STAR, anon_sym_PERCENT,
       anon_sym_TILDE_SLASH, anon_sym_is, anon_sym_DOT_DOT, anon_sym_QMARK_DOT_DOT,
       anon_sym_SEMI, anon_sym_EQ_GT, anon_sym_async_STAR, anon_sym_sync_STAR, anon_sym_AMP_AMP,
       anon_sym_PIPE_PIPE])])]"

lemma small_run_395: "small_run 1130 53578 ts_small_parse_table_395 1132 53698"
  by (simp add: small_simps ts_small_parse_table_395_def)

definition ts_small_parse_table_396 :: "small_group list" where
  "ts_small_parse_table_396 = [
     (53698, 8, [(ACTIONS 3, 1, [anon_sym_SLASH_SLASH]), (ACTIONS 5, 1, [anon_sym_SLASH_STAR]),
       (ACTIONS 7, 1, [anon_sym_SLASH_SLASH_SLASH]), (ACTIONS 9, 1, [sym__block_comment]),
       (ACTIONS 11, 1, [sym__documentation_block_comment]), (STATE 1132, 2, [sym_comment,
       sym_documentation_comment]), (ACTIONS 2958, 12, [anon_sym_QMARK, anon_sym_LT, anon_sym_GT,
       anon_sym_PIPE, anon_sym_AMP, anon_sym_GT_GT, anon_sym_SLASH, anon_sym_BANG, anon_sym_as,
       anon_sym_DOT, anon_sym_QMARK_DOT, anon_sym_async]), (ACTIONS 2956, 24, [anon_sym_LBRACE,
       anon_sym_LBRACK, anon_sym_COMMA, anon_sym_LPAREN, anon_sym_QMARK_QMARK,
       sym_equality_operator, anon_sym_LT_EQ, anon_sym_GT_EQ, anon_sym_CARET, anon_sym_LT_LT,
       anon_sym_GT_GT_GT, sym__additive_operator, anon_sym_STAR, anon_sym_PERCENT,
       anon_sym_TILDE_SLASH, anon_sym_is, anon_sym_DOT_DOT, anon_sym_QMARK_DOT_DOT,
       anon_sym_SEMI, anon_sym_EQ_GT, anon_sym_async_STAR, anon_sym_sync_STAR, anon_sym_AMP_AMP,
       anon_sym_PIPE_PIPE])]),
     (53758, 8, [(ACTIONS 3, 1, [anon_sym_SLASH_SLASH]), (ACTIONS 5, 1, [anon_sym_SLASH_STAR]),
       (ACTIONS 7, 1, [anon_sym_SLASH_SLASH_SLASH]), (ACTIONS 9, 1, [sym__block_comment]),
       (ACTIONS 11, 1, [sym__documentation_block_comment]), (STATE 1133, 2, [sym_comment,
       sym_documentation_comment]), (ACTIONS 2846, 12, [anon_sym_QMARK, anon_sym_LT, anon_sym_GT,
       anon_sym_PIPE, anon_sym_AMP, anon_sym_GT_GT, anon_sym_SLASH, anon_sym_BANG, anon_sym_as,
       anon_sym_DOT, anon_sym_QMARK_DOT, anon_sym_async]), (ACTIONS 2844, 24, [anon_sym_LBRACE,
       anon_sym_LBRACK, anon_sym_COMMA, anon_sym_LPAREN, anon_sym_QMARK_QMARK,
       sym_equality_operator, anon_sym_LT_EQ, anon_sym_GT_EQ, anon_sym_CARET, anon_sym_LT_LT,
       anon_sym_GT_GT_GT, sym__additive_operator, anon_sym_STAR, anon_sym_PERCENT,
       anon_sym_TILDE_SLASH, anon_sym_is, anon_sym_DOT_DOT, anon_sym_QMARK_DOT_DOT,
       anon_sym_SEMI, anon_sym_EQ_GT, anon_sym_async_STAR, anon_sym_sync_STAR, anon_sym_AMP_AMP,
       anon_sym_PIPE_PIPE])])]"

lemma small_run_396: "small_run 1132 53698 ts_small_parse_table_396 1134 53818"
  by (simp add: small_simps ts_small_parse_table_396_def)

definition ts_small_parse_table_397 :: "small_group list" where
  "ts_small_parse_table_397 = [
     (53818, 8, [(ACTIONS 3, 1, [anon_sym_SLASH_SLASH]), (ACTIONS 5, 1, [anon_sym_SLASH_STAR]),
       (ACTIONS 7, 1, [anon_sym_SLASH_SLASH_SLASH]), (ACTIONS 9, 1, [sym__block_comment]),
       (ACTIONS 11, 1, [sym__documentation_block_comment]), (STATE 1134, 2, [sym_comment,
       sym_documentation_comment]), (ACTIONS 1881, 6, [anon_sym_EQ, anon_sym_QMARK, anon_sym_LT,
       anon_sym_DOT, anon_sym_QMARK_DOT, anon_sym_async]), (ACTIONS 1879, 30, [anon_sym_LBRACE,
       anon_sym_RBRACE, anon_sym_LBRACK, anon_sym_COMMA, anon_sym_RBRACK, anon_sym_COLON,
       anon_sym_LPAREN, anon_sym_RPAREN, anon_sym_PLUS_EQ, anon_sym_DASH_EQ, anon_sym_STAR_EQ,
       anon_sym_SLASH_EQ, anon_sym_PERCENT_EQ, anon_sym_TILDE_SLASH_EQ, anon_sym_LT_LT_EQ,
       anon_sym_GT_GT_EQ, anon_sym_GT_GT_GT_EQ, anon_sym_AMP_EQ, anon_sym_CARET_EQ,
       anon_sym_PIPE_EQ, anon_sym_QMARK_QMARK_EQ, anon_sym_BANG, anon_sym_DOT_DOT,
       anon_sym_QMARK_DOT_DOT, anon_sym_SEMI, anon_sym_EQ_GT, anon_sym_case, anon_sym_else,
       anon_sym_async_STAR, anon_sym_sync_STAR])]),
     (53878, 8, [(ACTIONS 3, 1, [anon_sym_SLASH_SLASH]), (ACTIONS 5, 1, [anon_sym_SLASH_STAR]),
       (ACTIONS 7, 1, [anon_sym_SLASH_SLASH_SLASH]), (ACTIONS 9, 1, [sym__block_comment]),
       (ACTIONS 11, 1, [sym__documentation_block_comment]), (STATE 1135, 2, [sym_comment,
       sym_documentation_comment]), (ACTIONS 1332, 12, [anon_sym_QMARK, anon_sym_LT, anon_sym_GT,
       anon_sym_PIPE, anon_sym_AMP, anon_sym_GT_GT, anon_sym_SLASH, anon_sym_BANG, anon_sym_as,
       anon_sym_DOT, anon_sym_QMARK_DOT, anon_sym_async]), (ACTIONS 1322, 24, [anon_sym_LBRACE,
       anon_sym_LBRACK, anon_sym_COMMA, anon_sym_LPAREN, anon_sym_QMARK_QMARK,
       sym_equality_operator, anon_sym_LT_EQ, anon_sym_GT_EQ, anon_sym_CARET, anon_sym_LT_LT,
       anon_sym_GT_GT_GT, sym__additive_operator, anon_sym_STAR, anon_sym_PERCENT,
       anon_sym_TILDE_SLASH, anon_sym_is, anon_sym_DOT_DOT, anon_sym_QMARK_DOT_DOT,
       anon_sym_SEMI, anon_sym_EQ_GT, anon_sym_async_STAR, anon_sym_sync_STAR, anon_sym_AMP_AMP,
       anon_sym_PIPE_PIPE])])]"

lemma small_run_397: "small_run 1134 53818 ts_small_parse_table_397 1136 53938"
  by (simp add: small_simps ts_small_parse_table_397_def)

definition ts_small_parse_table_398 :: "small_group list" where
  "ts_small_parse_table_398 = [
     (53938, 8, [(ACTIONS 3, 1, [anon_sym_SLASH_SLASH]), (ACTIONS 5, 1, [anon_sym_SLASH_STAR]),
       (ACTIONS 7, 1, [anon_sym_SLASH_SLASH_SLASH]), (ACTIONS 9, 1, [sym__block_comment]),
       (ACTIONS 11, 1, [sym__documentation_block_comment]), (STATE 1136, 2, [sym_comment,
       sym_documentation_comment]), (ACTIONS 1733, 6, [anon_sym_EQ, anon_sym_QMARK, anon_sym_LT,
       anon_sym_DOT, anon_sym_QMARK_DOT, anon_sym_async]), (ACTIONS 1731, 30, [anon_sym_LBRACE,
       anon_sym_RBRACE, anon_sym_LBRACK, anon_sym_COMMA, anon_sym_RBRACK, anon_sym_COLON,
       anon_sym_LPAREN, anon_sym_RPAREN, anon_sym_PLUS_EQ, anon_sym_DASH_EQ, anon_sym_STAR_EQ,
       anon_sym_SLASH_EQ, anon_sym_PERCENT_EQ, anon_sym_TILDE_SLASH_EQ, anon_sym_LT_LT_EQ,
       anon_sym_GT_GT_EQ, anon_sym_GT_GT_GT_EQ, anon_sym_AMP_EQ, anon_sym_CARET_EQ,
       anon_sym_PIPE_EQ, anon_sym_QMARK_QMARK_EQ, anon_sym_BANG, anon_sym_DOT_DOT,
       anon_sym_QMARK_DOT_DOT, anon_sym_SEMI, anon_sym_EQ_GT, anon_sym_case, anon_sym_else,
       anon_sym_async_STAR, anon_sym_sync_STAR])]),
     (53998, 8, [(ACTIONS 3, 1, [anon_sym_SLASH_SLASH]), (ACTIONS 5, 1, [anon_sym_SLASH_STAR]),
       (ACTIONS 7, 1, [anon_sym_SLASH_SLASH_SLASH]), (ACTIONS 9, 1, [sym__block_comment]),
       (ACTIONS 11, 1, [sym__documentation_block_comment]), (STATE 1137, 2, [sym_comment,
       sym_documentation_comment]), (ACTIONS 2764, 12, [anon_sym_QMARK, anon_sym_LT, anon_sym_GT,
       anon_sym_PIPE, anon_sym_AMP, anon_sym_GT_GT, anon_sym_SLASH, anon_sym_BANG, anon_sym_as,
       anon_sym_DOT, anon_sym_QMARK_DOT, anon_sym_async]), (ACTIONS 2762, 24, [anon_sym_LBRACE,
       anon_sym_LBRACK, anon_sym_COMMA, anon_sym_LPAREN, anon_sym_QMARK_QMARK,
       sym_equality_operator, anon_sym_LT_EQ, anon_sym_GT_EQ, anon_sym_CARET, anon_sym_LT_LT,
       anon_sym_GT_GT_GT, sym__additive_operator, anon_sym_STAR, anon_sym_PERCENT,
       anon_sym_TILDE_SLASH, anon_sym_is, anon_sym_DOT_DOT, anon_sym_QMARK_DOT_DOT,
       anon_sym_SEMI, anon_sym_EQ_GT, anon_sym_async_STAR, anon_sym_sync_STAR, anon_sym_AMP_AMP,
       anon_sym_PIPE_PIPE])])]"

lemma small_run_398: "small_run 1136 53938 ts_small_parse_table_398 1138 54058"
  by (simp add: small_simps ts_small_parse_table_398_def)

definition ts_small_parse_table_399 :: "small_group list" where
  "ts_small_parse_table_399 = [
     (54058, 8, [(ACTIONS 3, 1, [anon_sym_SLASH_SLASH]), (ACTIONS 5, 1, [anon_sym_SLASH_STAR]),
       (ACTIONS 7, 1, [anon_sym_SLASH_SLASH_SLASH]), (ACTIONS 9, 1, [sym__block_comment]),
       (ACTIONS 11, 1, [sym__documentation_block_comment]), (STATE 1138, 2, [sym_comment,
       sym_documentation_comment]), (ACTIONS 1670, 6, [anon_sym_EQ, anon_sym_QMARK, anon_sym_LT,
       anon_sym_DOT, anon_sym_QMARK_DOT, anon_sym_async]), (ACTIONS 1668, 30, [anon_sym_LBRACE,
       anon_sym_RBRACE, anon_sym_LBRACK, anon_sym_COMMA, anon_sym_RBRACK, anon_sym_COLON,
       anon_sym_LPAREN, anon_sym_RPAREN, anon_sym_PLUS_EQ, anon_sym_DASH_EQ, anon_sym_STAR_EQ,
       anon_sym_SLASH_EQ, anon_sym_PERCENT_EQ, anon_sym_TILDE_SLASH_EQ, anon_sym_LT_LT_EQ,
       anon_sym_GT_GT_EQ, anon_sym_GT_GT_GT_EQ, anon_sym_AMP_EQ, anon_sym_CARET_EQ,
       anon_sym_PIPE_EQ, anon_sym_QMARK_QMARK_EQ, anon_sym_BANG, anon_sym_DOT_DOT,
       anon_sym_QMARK_DOT_DOT, anon_sym_SEMI, anon_sym_EQ_GT, anon_sym_case, anon_sym_else,
       anon_sym_async_STAR, anon_sym_sync_STAR])]),
     (54118, 8, [(ACTIONS 3, 1, [anon_sym_SLASH_SLASH]), (ACTIONS 5, 1, [anon_sym_SLASH_STAR]),
       (ACTIONS 7, 1, [anon_sym_SLASH_SLASH_SLASH]), (ACTIONS 9, 1, [sym__block_comment]),
       (ACTIONS 11, 1, [sym__documentation_block_comment]), (STATE 1139, 2, [sym_comment,
       sym_documentation_comment]), (ACTIONS 2922, 12, [anon_sym_QMARK, anon_sym_LT, anon_sym_GT,
       anon_sym_PIPE, anon_sym_AMP, anon_sym_GT_GT, anon_sym_SLASH, anon_sym_BANG, anon_sym_as,
       anon_sym_DOT, anon_sym_QMARK_DOT, anon_sym_async]), (ACTIONS 2920, 24, [anon_sym_LBRACE,
       anon_sym_LBRACK, anon_sym_COMMA, anon_sym_LPAREN, anon_sym_QMARK_QMARK,
       sym_equality_operator, anon_sym_LT_EQ, anon_sym_GT_EQ, anon_sym_CARET, anon_sym_LT_LT,
       anon_sym_GT_GT_GT, sym__additive_operator, anon_sym_STAR, anon_sym_PERCENT,
       anon_sym_TILDE_SLASH, anon_sym_is, anon_sym_DOT_DOT, anon_sym_QMARK_DOT_DOT,
       anon_sym_SEMI, anon_sym_EQ_GT, anon_sym_async_STAR, anon_sym_sync_STAR, anon_sym_AMP_AMP,
       anon_sym_PIPE_PIPE])])]"

lemma small_run_399: "small_run 1138 54058 ts_small_parse_table_399 1140 54178"
  by (simp add: small_simps ts_small_parse_table_399_def)

definition ts_small_parse_table_400 :: "small_group list" where
  "ts_small_parse_table_400 = [
     (54178, 11, [(ACTIONS 3, 1, [anon_sym_SLASH_SLASH]), (ACTIONS 5, 1,
       [anon_sym_SLASH_STAR]), (ACTIONS 7, 1, [anon_sym_SLASH_SLASH_SLASH]), (ACTIONS 9, 1,
       [sym__block_comment]), (ACTIONS 11, 1, [sym__documentation_block_comment]), (ACTIONS 1680,
       2, [anon_sym_LBRACK, anon_sym_LPAREN]), (ACTIONS 2829, 2, [anon_sym_QMARK, anon_sym_LT]),
       (STATE 1140, 2, [sym_comment, sym_documentation_comment]), (ACTIONS 1686, 3,
       [anon_sym_BANG, anon_sym_DOT, anon_sym_QMARK_DOT]), (ACTIONS 1699, 7, [anon_sym_GT,
       anon_sym_PIPE, anon_sym_AMP, anon_sym_GT_GT, anon_sym_SLASH, anon_sym_as,
       anon_sym_async]), (ACTIONS 1701, 22, [anon_sym_LBRACE, anon_sym_COMMA,
       anon_sym_QMARK_QMARK, sym_equality_operator, anon_sym_LT_EQ, anon_sym_GT_EQ,
       anon_sym_CARET, anon_sym_LT_LT, anon_sym_GT_GT_GT, sym__additive_operator, anon_sym_STAR,
       anon_sym_PERCENT, anon_sym_TILDE_SLASH, anon_sym_is, anon_sym_DOT_DOT,
       anon_sym_QMARK_DOT_DOT, anon_sym_SEMI, anon_sym_EQ_GT, anon_sym_async_STAR,
       anon_sym_sync_STAR, anon_sym_AMP_AMP, anon_sym_PIPE_PIPE])]),
     (54244, 8, [(ACTIONS 3, 1, [anon_sym_SLASH_SLASH]), (ACTIONS 5, 1, [anon_sym_SLASH_STAR]),
       (ACTIONS 7, 1, [anon_sym_SLASH_SLASH_SLASH]), (ACTIONS 9, 1, [sym__block_comment]),
       (ACTIONS 11, 1, [sym__documentation_block_comment]), (STATE 1141, 2, [sym_comment,
       sym_documentation_comment]), (ACTIONS 1721, 6, [anon_sym_EQ, anon_sym_QMARK, anon_sym_LT,
       anon_sym_DOT, anon_sym_QMARK_DOT, anon_sym_async]), (ACTIONS 1719, 30, [anon_sym_LBRACE,
       anon_sym_RBRACE, anon_sym_LBRACK, anon_sym_COMMA, anon_sym_RBRACK, anon_sym_COLON,
       anon_sym_LPAREN, anon_sym_RPAREN, anon_sym_PLUS_EQ, anon_sym_DASH_EQ, anon_sym_STAR_EQ,
       anon_sym_SLASH_EQ, anon_sym_PERCENT_EQ, anon_sym_TILDE_SLASH_EQ, anon_sym_LT_LT_EQ,
       anon_sym_GT_GT_EQ, anon_sym_GT_GT_GT_EQ, anon_sym_AMP_EQ, anon_sym_CARET_EQ,
       anon_sym_PIPE_EQ, anon_sym_QMARK_QMARK_EQ, anon_sym_BANG, anon_sym_DOT_DOT,
       anon_sym_QMARK_DOT_DOT, anon_sym_SEMI, anon_sym_EQ_GT, anon_sym_case, anon_sym_else,
       anon_sym_async_STAR, anon_sym_sync_STAR])])]"

lemma small_run_400: "small_run 1140 54178 ts_small_parse_table_400 1142 54304"
  by (simp add: small_simps ts_small_parse_table_400_def)

definition ts_small_parse_table_401 :: "small_group list" where
  "ts_small_parse_table_401 = [
     (54304, 8, [(ACTIONS 3, 1, [anon_sym_SLASH_SLASH]), (ACTIONS 5, 1, [anon_sym_SLASH_STAR]),
       (ACTIONS 7, 1, [anon_sym_SLASH_SLASH_SLASH]), (ACTIONS 9, 1, [sym__block_comment]),
       (ACTIONS 11, 1, [sym__documentation_block_comment]), (STATE 1142, 2, [sym_comment,
       sym_documentation_comment]), (ACTIONS 2864, 12, [anon_sym_QMARK, anon_sym_LT, anon_sym_GT,
       anon_sym_PIPE, anon_sym_AMP, anon_sym_GT_GT, anon_sym_SLASH, anon_sym_BANG, anon_sym_as,
       anon_sym_DOT, anon_sym_QMARK_DOT, anon_sym_async]), (ACTIONS 2862, 24, [anon_sym_LBRACE,
       anon_sym_LBRACK, anon_sym_COMMA, anon_sym_LPAREN, anon_sym_QMARK_QMARK,
       sym_equality_operator, anon_sym_LT_EQ, anon_sym_GT_EQ, anon_sym_CARET, anon_sym_LT_LT,
       anon_sym_GT_GT_GT, sym__additive_operator, anon_sym_STAR, anon_sym_PERCENT,
       anon_sym_TILDE_SLASH, anon_sym_is, anon_sym_DOT_DOT, anon_sym_QMARK_DOT_DOT,
       anon_sym_SEMI, anon_sym_EQ_GT, anon_sym_async_STAR, anon_sym_sync_STAR, anon_sym_AMP_AMP,
       anon_sym_PIPE_PIPE])]),
     (54364, 8, [(ACTIONS 3, 1, [anon_sym_SLASH_SLASH]), (ACTIONS 5, 1, [anon_sym_SLASH_STAR]),
       (ACTIONS 7, 1, [anon_sym_SLASH_SLASH_SLASH]), (ACTIONS 9, 1, [sym__block_comment]),
       (ACTIONS 11, 1, [sym__documentation_block_comment]), (STATE 1143, 2, [sym_comment,
       sym_documentation_comment]), (ACTIONS 2978, 12, [anon_sym_QMARK, anon_sym_LT, anon_sym_GT,
       anon_sym_PIPE, anon_sym_AMP, anon_sym_GT_GT, anon_sym_SLASH, anon_sym_BANG, anon_sym_as,
       anon_sym_DOT, anon_sym_QMARK_DOT, anon_sym_async]), (ACTIONS 2976, 24, [anon_sym_LBRACE,
       anon_sym_LBRACK, anon_sym_COMMA, anon_sym_LPAREN, anon_sym_QMARK_QMARK,
       sym_equality_operator, anon_sym_LT_EQ, anon_sym_GT_EQ, anon_sym_CARET, anon_sym_LT_LT,
       anon_sym_GT_GT_GT, sym__additive_operator, anon_sym_STAR, anon_sym_PERCENT,
       anon_sym_TILDE_SLASH, anon_sym_is, anon_sym_DOT_DOT, anon_sym_QMARK_DOT_DOT,
       anon_sym_SEMI, anon_sym_EQ_GT, anon_sym_async_STAR, anon_sym_sync_STAR, anon_sym_AMP_AMP,
       anon_sym_PIPE_PIPE])])]"

lemma small_run_401: "small_run 1142 54304 ts_small_parse_table_401 1144 54424"
  by (simp add: small_simps ts_small_parse_table_401_def)

definition ts_small_parse_table_402 :: "small_group list" where
  "ts_small_parse_table_402 = [
     (54424, 8, [(ACTIONS 3, 1, [anon_sym_SLASH_SLASH]), (ACTIONS 5, 1, [anon_sym_SLASH_STAR]),
       (ACTIONS 7, 1, [anon_sym_SLASH_SLASH_SLASH]), (ACTIONS 9, 1, [sym__block_comment]),
       (ACTIONS 11, 1, [sym__documentation_block_comment]), (STATE 1144, 2, [sym_comment,
       sym_documentation_comment]), (ACTIONS 2834, 12, [anon_sym_QMARK, anon_sym_LT, anon_sym_GT,
       anon_sym_PIPE, anon_sym_AMP, anon_sym_GT_GT, anon_sym_SLASH, anon_sym_BANG, anon_sym_as,
       anon_sym_DOT, anon_sym_QMARK_DOT, anon_sym_async]), (ACTIONS 2832, 24, [anon_sym_LBRACE,
       anon_sym_LBRACK, anon_sym_COMMA, anon_sym_LPAREN, anon_sym_QMARK_QMARK,
       sym_equality_operator, anon_sym_LT_EQ, anon_sym_GT_EQ, anon_sym_CARET, anon_sym_LT_LT,
       anon_sym_GT_GT_GT, sym__additive_operator, anon_sym_STAR, anon_sym_PERCENT,
       anon_sym_TILDE_SLASH, anon_sym_is, anon_sym_DOT_DOT, anon_sym_QMARK_DOT_DOT,
       anon_sym_SEMI, anon_sym_EQ_GT, anon_sym_async_STAR, anon_sym_sync_STAR, anon_sym_AMP_AMP,
       anon_sym_PIPE_PIPE])]),
     (54484, 8, [(ACTIONS 3, 1, [anon_sym_SLASH_SLASH]), (ACTIONS 5, 1, [anon_sym_SLASH_STAR]),
       (ACTIONS 7, 1, [anon_sym_SLASH_SLASH_SLASH]), (ACTIONS 9, 1, [sym__block_comment]),
       (ACTIONS 11, 1, [sym__documentation_block_comment]), (STATE 1145, 2, [sym_comment,
       sym_documentation_comment]), (ACTIONS 1645, 6, [anon_sym_EQ, anon_sym_QMARK, anon_sym_LT,
       anon_sym_DOT, anon_sym_QMARK_DOT, anon_sym_async]), (ACTIONS 1643, 30, [anon_sym_LBRACE,
       anon_sym_RBRACE, anon_sym_LBRACK, anon_sym_COMMA, anon_sym_RBRACK, anon_sym_COLON,
       anon_sym_LPAREN, anon_sym_RPAREN, anon_sym_PLUS_EQ, anon_sym_DASH_EQ, anon_sym_STAR_EQ,
       anon_sym_SLASH_EQ, anon_sym_PERCENT_EQ, anon_sym_TILDE_SLASH_EQ, anon_sym_LT_LT_EQ,
       anon_sym_GT_GT_EQ, anon_sym_GT_GT_GT_EQ, anon_sym_AMP_EQ, anon_sym_CARET_EQ,
       anon_sym_PIPE_EQ, anon_sym_QMARK_QMARK_EQ, anon_sym_BANG, anon_sym_DOT_DOT,
       anon_sym_QMARK_DOT_DOT, anon_sym_SEMI, anon_sym_EQ_GT, anon_sym_case, anon_sym_else,
       anon_sym_async_STAR, anon_sym_sync_STAR])])]"

lemma small_run_402: "small_run 1144 54424 ts_small_parse_table_402 1146 54544"
  by (simp add: small_simps ts_small_parse_table_402_def)

definition ts_small_parse_table_403 :: "small_group list" where
  "ts_small_parse_table_403 = [
     (54544, 8, [(ACTIONS 3, 1, [anon_sym_SLASH_SLASH]), (ACTIONS 5, 1, [anon_sym_SLASH_STAR]),
       (ACTIONS 7, 1, [anon_sym_SLASH_SLASH_SLASH]), (ACTIONS 9, 1, [sym__block_comment]),
       (ACTIONS 11, 1, [sym__documentation_block_comment]), (STATE 1146, 2, [sym_comment,
       sym_documentation_comment]), (ACTIONS 3072, 12, [anon_sym_QMARK, anon_sym_LT, anon_sym_GT,
       anon_sym_PIPE, anon_sym_AMP, anon_sym_GT_GT, anon_sym_SLASH, anon_sym_BANG, anon_sym_as,
       anon_sym_DOT, anon_sym_QMARK_DOT, anon_sym_async]), (ACTIONS 3070, 24, [anon_sym_LBRACE,
       anon_sym_LBRACK, anon_sym_COMMA, anon_sym_LPAREN, anon_sym_QMARK_QMARK,
       sym_equality_operator, anon_sym_LT_EQ, anon_sym_GT_EQ, anon_sym_CARET, anon_sym_LT_LT,
       anon_sym_GT_GT_GT, sym__additive_operator, anon_sym_STAR, anon_sym_PERCENT,
       anon_sym_TILDE_SLASH, anon_sym_is, anon_sym_DOT_DOT, anon_sym_QMARK_DOT_DOT,
       anon_sym_SEMI, anon_sym_EQ_GT, anon_sym_async_STAR, anon_sym_sync_STAR, anon_sym_AMP_AMP,
       anon_sym_PIPE_PIPE])]),
     (54604, 12, [(ACTIONS 3, 1, [anon_sym_SLASH_SLASH]), (ACTIONS 5, 1,
       [anon_sym_SLASH_STAR]), (ACTIONS 7, 1, [anon_sym_SLASH_SLASH_SLASH]), (ACTIONS 9, 1,
       [sym__block_comment]), (ACTIONS 11, 1, [sym__documentation_block_comment]), (ACTIONS 2504,
       1, [anon_sym_SLASH]), (STATE 424, 1, [sym_multiplicative_operator]), (STATE 1416, 1,
       [sym__multiplicative_operator]), (ACTIONS 2501, 3, [anon_sym_STAR, anon_sym_PERCENT,
       anon_sym_TILDE_SLASH]), (STATE 1147, 3, [sym_comment, sym_documentation_comment,
       aux_sym_multiplicative_expression_repeat1]), (ACTIONS 2499, 6, [anon_sym_QMARK,
       anon_sym_LT, anon_sym_GT, anon_sym_PIPE, anon_sym_AMP, anon_sym_GT_GT]), (ACTIONS 2497,
       23, [anon_sym_RBRACE, anon_sym_COMMA, anon_sym_RBRACK, anon_sym_COLON, anon_sym_RPAREN,
       anon_sym_QMARK_QMARK, sym_equality_operator, anon_sym_LT_EQ, anon_sym_GT_EQ,
       anon_sym_CARET, anon_sym_LT_LT, anon_sym_GT_GT_GT, sym__additive_operator, anon_sym_is,
       anon_sym_as, anon_sym_DOT_DOT, anon_sym_QMARK_DOT_DOT, anon_sym_SEMI, anon_sym_EQ_GT,
       anon_sym_case, anon_sym_else, anon_sym_AMP_AMP, anon_sym_PIPE_PIPE])])]"

lemma small_run_403: "small_run 1146 54544 ts_small_parse_table_403 1148 54672"
  by (simp add: small_simps ts_small_parse_table_403_def)

definition ts_small_parse_table_404 :: "small_group list" where
  "ts_small_parse_table_404 = [
     (54672, 8, [(ACTIONS 3, 1, [anon_sym_SLASH_SLASH]), (ACTIONS 5, 1, [anon_sym_SLASH_STAR]),
       (ACTIONS 7, 1, [anon_sym_SLASH_SLASH_SLASH]), (ACTIONS 9, 1, [sym__block_comment]),
       (ACTIONS 11, 1, [sym__documentation_block_comment]), (STATE 1148, 2, [sym_comment,
       sym_documentation_comment]), (ACTIONS 3026, 12, [anon_sym_QMARK, anon_sym_LT, anon_sym_GT,
       anon_sym_PIPE, anon_sym_AMP, anon_sym_GT_GT, anon_sym_SLASH, anon_sym_BANG, anon_sym_as,
       anon_sym_DOT, anon_sym_QMARK_DOT, anon_sym_async]), (ACTIONS 3024, 24, [anon_sym_LBRACE,
       anon_sym_LBRACK, anon_sym_COMMA, anon_sym_LPAREN, anon_sym_QMARK_QMARK,
       sym_equality_operator, anon_sym_LT_EQ, anon_sym_GT_EQ, anon_sym_CARET, anon_sym_LT_LT,
       anon_sym_GT_GT_GT, sym__additive_operator, anon_sym_STAR, anon_sym_PERCENT,
       anon_sym_TILDE_SLASH, anon_sym_is, anon_sym_DOT_DOT, anon_sym_QMARK_DOT_DOT,
       anon_sym_SEMI, anon_sym_EQ_GT, anon_sym_async_STAR, anon_sym_sync_STAR, anon_sym_AMP_AMP,
       anon_sym_PIPE_PIPE])]),
     (54732, 8, [(ACTIONS 3, 1, [anon_sym_SLASH_SLASH]), (ACTIONS 5, 1, [anon_sym_SLASH_STAR]),
       (ACTIONS 7, 1, [anon_sym_SLASH_SLASH_SLASH]), (ACTIONS 9, 1, [sym__block_comment]),
       (ACTIONS 11, 1, [sym__documentation_block_comment]), (STATE 1149, 2, [sym_comment,
       sym_documentation_comment]), (ACTIONS 2824, 12, [anon_sym_QMARK, anon_sym_LT, anon_sym_GT,
       anon_sym_PIPE, anon_sym_AMP, anon_sym_GT_GT, anon_sym_SLASH, anon_sym_BANG, anon_sym_as,
       anon_sym_DOT, anon_sym_QMARK_DOT, anon_sym_async]), (ACTIONS 2822, 24, [anon_sym_LBRACE,
       anon_sym_LBRACK, anon_sym_COMMA, anon_sym_LPAREN, anon_sym_QMARK_QMARK,
       sym_equality_operator, anon_sym_LT_EQ, anon_sym_GT_EQ, anon_sym_CARET, anon_sym_LT_LT,
       anon_sym_GT_GT_GT, sym__additive_operator, anon_sym_STAR, anon_sym_PERCENT,
       anon_sym_TILDE_SLASH, anon_sym_is, anon_sym_DOT_DOT, anon_sym_QMARK_DOT_DOT,
       anon_sym_SEMI, anon_sym_EQ_GT, anon_sym_async_STAR, anon_sym_sync_STAR, anon_sym_AMP_AMP,
       anon_sym_PIPE_PIPE])])]"

lemma small_run_404: "small_run 1148 54672 ts_small_parse_table_404 1150 54792"
  by (simp add: small_simps ts_small_parse_table_404_def)

definition ts_small_parse_table_405 :: "small_group list" where
  "ts_small_parse_table_405 = [
     (54792, 8, [(ACTIONS 3, 1, [anon_sym_SLASH_SLASH]), (ACTIONS 5, 1, [anon_sym_SLASH_STAR]),
       (ACTIONS 7, 1, [anon_sym_SLASH_SLASH_SLASH]), (ACTIONS 9, 1, [sym__block_comment]),
       (ACTIONS 11, 1, [sym__documentation_block_comment]), (STATE 1150, 2, [sym_comment,
       sym_documentation_comment]), (ACTIONS 2942, 12, [anon_sym_QMARK, anon_sym_LT, anon_sym_GT,
       anon_sym_PIPE, anon_sym_AMP, anon_sym_GT_GT, anon_sym_SLASH, anon_sym_BANG, anon_sym_as,
       anon_sym_DOT, anon_sym_QMARK_DOT, anon_sym_async]), (ACTIONS 2940, 24, [anon_sym_LBRACE,
       anon_sym_LBRACK, anon_sym_COMMA, anon_sym_LPAREN, anon_sym_QMARK_QMARK,
       sym_equality_operator, anon_sym_LT_EQ, anon_sym_GT_EQ, anon_sym_CARET, anon_sym_LT_LT,
       anon_sym_GT_GT_GT, sym__additive_operator, anon_sym_STAR, anon_sym_PERCENT,
       anon_sym_TILDE_SLASH, anon_sym_is, anon_sym_DOT_DOT, anon_sym_QMARK_DOT_DOT,
       anon_sym_SEMI, anon_sym_EQ_GT, anon_sym_async_STAR, anon_sym_sync_STAR, anon_sym_AMP_AMP,
       anon_sym_PIPE_PIPE])]),
     (54852, 8, [(ACTIONS 3, 1, [anon_sym_SLASH_SLASH]), (ACTIONS 5, 1, [anon_sym_SLASH_STAR]),
       (ACTIONS 7, 1, [anon_sym_SLASH_SLASH_SLASH]), (ACTIONS 9, 1, [sym__block_comment]),
       (ACTIONS 11, 1, [sym__documentation_block_comment]), (STATE 1151, 2, [sym_comment,
       sym_documentation_comment]), (ACTIONS 1041, 12, [anon_sym_QMARK, anon_sym_LT, anon_sym_GT,
       anon_sym_PIPE, anon_sym_AMP, anon_sym_GT_GT, anon_sym_SLASH, anon_sym_BANG, anon_sym_as,
       anon_sym_DOT, anon_sym_QMARK_DOT, anon_sym_async]), (ACTIONS 1039, 24, [anon_sym_LBRACE,
       anon_sym_LBRACK, anon_sym_COMMA, anon_sym_LPAREN, anon_sym_QMARK_QMARK,
       sym_equality_operator, anon_sym_LT_EQ, anon_sym_GT_EQ, anon_sym_CARET, anon_sym_LT_LT,
       anon_sym_GT_GT_GT, sym__additive_operator, anon_sym_STAR, anon_sym_PERCENT,
       anon_sym_TILDE_SLASH, anon_sym_is, anon_sym_DOT_DOT, anon_sym_QMARK_DOT_DOT,
       anon_sym_SEMI, anon_sym_EQ_GT, anon_sym_async_STAR, anon_sym_sync_STAR, anon_sym_AMP_AMP,
       anon_sym_PIPE_PIPE])])]"

lemma small_run_405: "small_run 1150 54792 ts_small_parse_table_405 1152 54912"
  by (simp add: small_simps ts_small_parse_table_405_def)

definition ts_small_parse_table_406 :: "small_group list" where
  "ts_small_parse_table_406 = [
     (54912, 8, [(ACTIONS 3, 1, [anon_sym_SLASH_SLASH]), (ACTIONS 5, 1, [anon_sym_SLASH_STAR]),
       (ACTIONS 7, 1, [anon_sym_SLASH_SLASH_SLASH]), (ACTIONS 9, 1, [sym__block_comment]),
       (ACTIONS 11, 1, [sym__documentation_block_comment]), (STATE 1152, 2, [sym_comment,
       sym_documentation_comment]), (ACTIONS 1733, 12, [anon_sym_QMARK, anon_sym_LT, anon_sym_GT,
       anon_sym_PIPE, anon_sym_AMP, anon_sym_GT_GT, anon_sym_SLASH, anon_sym_BANG, anon_sym_as,
       anon_sym_DOT, anon_sym_QMARK_DOT, anon_sym_async]), (ACTIONS 1731, 24, [anon_sym_LBRACE,
       anon_sym_LBRACK, anon_sym_COMMA, anon_sym_LPAREN, anon_sym_QMARK_QMARK,
       sym_equality_operator, anon_sym_LT_EQ, anon_sym_GT_EQ, anon_sym_CARET, anon_sym_LT_LT,
       anon_sym_GT_GT_GT, sym__additive_operator, anon_sym_STAR, anon_sym_PERCENT,
       anon_sym_TILDE_SLASH, anon_sym_is, anon_sym_DOT_DOT, anon_sym_QMARK_DOT_DOT,
       anon_sym_SEMI, anon_sym_EQ_GT, anon_sym_async_STAR, anon_sym_sync_STAR, anon_sym_AMP_AMP,
       anon_sym_PIPE_PIPE])]),
     (54972, 8, [(ACTIONS 3, 1, [anon_sym_SLASH_SLASH]), (ACTIONS 5, 1, [anon_sym_SLASH_STAR]),
       (ACTIONS 7, 1, [anon_sym_SLASH_SLASH_SLASH]), (ACTIONS 9, 1, [sym__block_comment]),
       (ACTIONS 11, 1, [sym__documentation_block_comment]), (STATE 1153, 2, [sym_comment,
       sym_documentation_comment]), (ACTIONS 3018, 12, [anon_sym_QMARK, anon_sym_LT, anon_sym_GT,
       anon_sym_PIPE, anon_sym_AMP, anon_sym_GT_GT, anon_sym_SLASH, anon_sym_BANG, anon_sym_as,
       anon_sym_DOT, anon_sym_QMARK_DOT, anon_sym_async]), (ACTIONS 3016, 24, [anon_sym_LBRACE,
       anon_sym_LBRACK, anon_sym_COMMA, anon_sym_LPAREN, anon_sym_QMARK_QMARK,
       sym_equality_operator, anon_sym_LT_EQ, anon_sym_GT_EQ, anon_sym_CARET, anon_sym_LT_LT,
       anon_sym_GT_GT_GT, sym__additive_operator, anon_sym_STAR, anon_sym_PERCENT,
       anon_sym_TILDE_SLASH, anon_sym_is, anon_sym_DOT_DOT, anon_sym_QMARK_DOT_DOT,
       anon_sym_SEMI, anon_sym_EQ_GT, anon_sym_async_STAR, anon_sym_sync_STAR, anon_sym_AMP_AMP,
       anon_sym_PIPE_PIPE])])]"

lemma small_run_406: "small_run 1152 54912 ts_small_parse_table_406 1154 55032"
  by (simp add: small_simps ts_small_parse_table_406_def)

definition ts_small_parse_table_407 :: "small_group list" where
  "ts_small_parse_table_407 = [
     (55032, 8, [(ACTIONS 3, 1, [anon_sym_SLASH_SLASH]), (ACTIONS 5, 1, [anon_sym_SLASH_STAR]),
       (ACTIONS 7, 1, [anon_sym_SLASH_SLASH_SLASH]), (ACTIONS 9, 1, [sym__block_comment]),
       (ACTIONS 11, 1, [sym__documentation_block_comment]), (STATE 1154, 2, [sym_comment,
       sym_documentation_comment]), (ACTIONS 3022, 12, [anon_sym_QMARK, anon_sym_LT, anon_sym_GT,
       anon_sym_PIPE, anon_sym_AMP, anon_sym_GT_GT, anon_sym_SLASH, anon_sym_BANG, anon_sym_as,
       anon_sym_DOT, anon_sym_QMARK_DOT, anon_sym_async]), (ACTIONS 3020, 24, [anon_sym_LBRACE,
       anon_sym_LBRACK, anon_sym_COMMA, anon_sym_LPAREN, anon_sym_QMARK_QMARK,
       sym_equality_operator, anon_sym_LT_EQ, anon_sym_GT_EQ, anon_sym_CARET, anon_sym_LT_LT,
       anon_sym_GT_GT_GT, sym__additive_operator, anon_sym_STAR, anon_sym_PERCENT,
       anon_sym_TILDE_SLASH, anon_sym_is, anon_sym_DOT_DOT, anon_sym_QMARK_DOT_DOT,
       anon_sym_SEMI, anon_sym_EQ_GT, anon_sym_async_STAR, anon_sym_sync_STAR, anon_sym_AMP_AMP,
       anon_sym_PIPE_PIPE])]),
     (55092, 8, [(ACTIONS 3, 1, [anon_sym_SLASH_SLASH]), (ACTIONS 5, 1, [anon_sym_SLASH_STAR]),
       (ACTIONS 7, 1, [anon_sym_SLASH_SLASH_SLASH]), (ACTIONS 9, 1, [sym__block_comment]),
       (ACTIONS 11, 1, [sym__documentation_block_comment]), (STATE 1155, 2, [sym_comment,
       sym_documentation_comment]), (ACTIONS 1697, 6, [anon_sym_EQ, anon_sym_QMARK, anon_sym_LT,
       anon_sym_DOT, anon_sym_QMARK_DOT, anon_sym_async]), (ACTIONS 1695, 30, [anon_sym_LBRACE,
       anon_sym_RBRACE, anon_sym_LBRACK, anon_sym_COMMA, anon_sym_RBRACK, anon_sym_COLON,
       anon_sym_LPAREN, anon_sym_RPAREN, anon_sym_PLUS_EQ, anon_sym_DASH_EQ, anon_sym_STAR_EQ,
       anon_sym_SLASH_EQ, anon_sym_PERCENT_EQ, anon_sym_TILDE_SLASH_EQ, anon_sym_LT_LT_EQ,
       anon_sym_GT_GT_EQ, anon_sym_GT_GT_GT_EQ, anon_sym_AMP_EQ, anon_sym_CARET_EQ,
       anon_sym_PIPE_EQ, anon_sym_QMARK_QMARK_EQ, anon_sym_BANG, anon_sym_DOT_DOT,
       anon_sym_QMARK_DOT_DOT, anon_sym_SEMI, anon_sym_EQ_GT, anon_sym_case, anon_sym_else,
       anon_sym_async_STAR, anon_sym_sync_STAR])])]"

lemma small_run_407: "small_run 1154 55032 ts_small_parse_table_407 1156 55152"
  by (simp add: small_simps ts_small_parse_table_407_def)

definition ts_small_parse_table_408 :: "small_group list" where
  "ts_small_parse_table_408 = [
     (55152, 8, [(ACTIONS 3, 1, [anon_sym_SLASH_SLASH]), (ACTIONS 5, 1, [anon_sym_SLASH_STAR]),
       (ACTIONS 7, 1, [anon_sym_SLASH_SLASH_SLASH]), (ACTIONS 9, 1, [sym__block_comment]),
       (ACTIONS 11, 1, [sym__documentation_block_comment]), (STATE 1156, 2, [sym_comment,
       sym_documentation_comment]), (ACTIONS 2970, 12, [anon_sym_QMARK, anon_sym_LT, anon_sym_GT,
       anon_sym_PIPE, anon_sym_AMP, anon_sym_GT_GT, anon_sym_SLASH, anon_sym_BANG, anon_sym_as,
       anon_sym_DOT, anon_sym_QMARK_DOT, anon_sym_async]), (ACTIONS 2968, 24, [anon_sym_LBRACE,
       anon_sym_LBRACK, anon_sym_COMMA, anon_sym_LPAREN, anon_sym_QMARK_QMARK,
       sym_equality_operator, anon_sym_LT_EQ, anon_sym_GT_EQ, anon_sym_CARET, anon_sym_LT_LT,
       anon_sym_GT_GT_GT, sym__additive_operator, anon_sym_STAR, anon_sym_PERCENT,
       anon_sym_TILDE_SLASH, anon_sym_is, anon_sym_DOT_DOT, anon_sym_QMARK_DOT_DOT,
       anon_sym_SEMI, anon_sym_EQ_GT, anon_sym_async_STAR, anon_sym_sync_STAR, anon_sym_AMP_AMP,
       anon_sym_PIPE_PIPE])]),
     (55212, 8, [(ACTIONS 3, 1, [anon_sym_SLASH_SLASH]), (ACTIONS 5, 1, [anon_sym_SLASH_STAR]),
       (ACTIONS 7, 1, [anon_sym_SLASH_SLASH_SLASH]), (ACTIONS 9, 1, [sym__block_comment]),
       (ACTIONS 11, 1, [sym__documentation_block_comment]), (STATE 1157, 2, [sym_comment,
       sym_documentation_comment]), (ACTIONS 2966, 12, [anon_sym_QMARK, anon_sym_LT, anon_sym_GT,
       anon_sym_PIPE, anon_sym_AMP, anon_sym_GT_GT, anon_sym_SLASH, anon_sym_BANG, anon_sym_as,
       anon_sym_DOT, anon_sym_QMARK_DOT, anon_sym_async]), (ACTIONS 2964, 24, [anon_sym_LBRACE,
       anon_sym_LBRACK, anon_sym_COMMA, anon_sym_LPAREN, anon_sym_QMARK_QMARK,
       sym_equality_operator, anon_sym_LT_EQ, anon_sym_GT_EQ, anon_sym_CARET, anon_sym_LT_LT,
       anon_sym_GT_GT_GT, sym__additive_operator, anon_sym_STAR, anon_sym_PERCENT,
       anon_sym_TILDE_SLASH, anon_sym_is, anon_sym_DOT_DOT, anon_sym_QMARK_DOT_DOT,
       anon_sym_SEMI, anon_sym_EQ_GT, anon_sym_async_STAR, anon_sym_sync_STAR, anon_sym_AMP_AMP,
       anon_sym_PIPE_PIPE])])]"

lemma small_run_408: "small_run 1156 55152 ts_small_parse_table_408 1158 55272"
  by (simp add: small_simps ts_small_parse_table_408_def)

definition ts_small_parse_table_409 :: "small_group list" where
  "ts_small_parse_table_409 = [
     (55272, 8, [(ACTIONS 3, 1, [anon_sym_SLASH_SLASH]), (ACTIONS 5, 1, [anon_sym_SLASH_STAR]),
       (ACTIONS 7, 1, [anon_sym_SLASH_SLASH_SLASH]), (ACTIONS 9, 1, [sym__block_comment]),
       (ACTIONS 11, 1, [sym__documentation_block_comment]), (STATE 1158, 2, [sym_comment,
       sym_documentation_comment]), (ACTIONS 1729, 12, [anon_sym_QMARK, anon_sym_LT, anon_sym_GT,
       anon_sym_PIPE, anon_sym_AMP, anon_sym_GT_GT, anon_sym_SLASH, anon_sym_BANG, anon_sym_as,
       anon_sym_DOT, anon_sym_QMARK_DOT, anon_sym_async]), (ACTIONS 1727, 24, [anon_sym_LBRACE,
       anon_sym_LBRACK, anon_sym_COMMA, anon_sym_LPAREN, anon_sym_QMARK_QMARK,
       sym_equality_operator, anon_sym_LT_EQ, anon_sym_GT_EQ, anon_sym_CARET, anon_sym_LT_LT,
       anon_sym_GT_GT_GT, sym__additive_operator, anon_sym_STAR, anon_sym_PERCENT,
       anon_sym_TILDE_SLASH, anon_sym_is, anon_sym_DOT_DOT, anon_sym_QMARK_DOT_DOT,
       anon_sym_SEMI, anon_sym_EQ_GT, anon_sym_async_STAR, anon_sym_sync_STAR, anon_sym_AMP_AMP,
       anon_sym_PIPE_PIPE])]),
     (55332, 8, [(ACTIONS 3, 1, [anon_sym_SLASH_SLASH]), (ACTIONS 5, 1, [anon_sym_SLASH_STAR]),
       (ACTIONS 7, 1, [anon_sym_SLASH_SLASH_SLASH]), (ACTIONS 9, 1, [sym__block_comment]),
       (ACTIONS 11, 1, [sym__documentation_block_comment]), (STATE 1159, 2, [sym_comment,
       sym_documentation_comment]), (ACTIONS 1412, 12, [anon_sym_QMARK, anon_sym_LT, anon_sym_GT,
       anon_sym_PIPE, anon_sym_AMP, anon_sym_GT_GT, anon_sym_SLASH, anon_sym_BANG, anon_sym_as,
       anon_sym_DOT, anon_sym_QMARK_DOT, anon_sym_async]), (ACTIONS 1410, 24, [anon_sym_LBRACE,
       anon_sym_LBRACK, anon_sym_COMMA, anon_sym_LPAREN, anon_sym_QMARK_QMARK,
       sym_equality_operator, anon_sym_LT_EQ, anon_sym_GT_EQ, anon_sym_CARET, anon_sym_LT_LT,
       anon_sym_GT_GT_GT, sym__additive_operator, anon_sym_STAR, anon_sym_PERCENT,
       anon_sym_TILDE_SLASH, anon_sym_is, anon_sym_DOT_DOT, anon_sym_QMARK_DOT_DOT,
       anon_sym_SEMI, anon_sym_EQ_GT, anon_sym_async_STAR, anon_sym_sync_STAR, anon_sym_AMP_AMP,
       anon_sym_PIPE_PIPE])])]"

lemma small_run_409: "small_run 1158 55272 ts_small_parse_table_409 1160 55392"
  by (simp add: small_simps ts_small_parse_table_409_def)

definition ts_small_parse_table_410 :: "small_group list" where
  "ts_small_parse_table_410 = [
     (55392, 8, [(ACTIONS 3, 1, [anon_sym_SLASH_SLASH]), (ACTIONS 5, 1, [anon_sym_SLASH_STAR]),
       (ACTIONS 7, 1, [anon_sym_SLASH_SLASH_SLASH]), (ACTIONS 9, 1, [sym__block_comment]),
       (ACTIONS 11, 1, [sym__documentation_block_comment]), (STATE 1160, 2, [sym_comment,
       sym_documentation_comment]), (ACTIONS 1821, 6, [anon_sym_EQ, anon_sym_QMARK, anon_sym_LT,
       anon_sym_DOT, anon_sym_QMARK_DOT, anon_sym_async]), (ACTIONS 1819, 30, [anon_sym_LBRACE,
       anon_sym_RBRACE, anon_sym_LBRACK, anon_sym_COMMA, anon_sym_RBRACK, anon_sym_COLON,
       anon_sym_LPAREN, anon_sym_RPAREN, anon_sym_PLUS_EQ, anon_sym_DASH_EQ, anon_sym_STAR_EQ,
       anon_sym_SLASH_EQ, anon_sym_PERCENT_EQ, anon_sym_TILDE_SLASH_EQ, anon_sym_LT_LT_EQ,
       anon_sym_GT_GT_EQ, anon_sym_GT_GT_GT_EQ, anon_sym_AMP_EQ, anon_sym_CARET_EQ,
       anon_sym_PIPE_EQ, anon_sym_QMARK_QMARK_EQ, anon_sym_BANG, anon_sym_DOT_DOT,
       anon_sym_QMARK_DOT_DOT, anon_sym_SEMI, anon_sym_EQ_GT, anon_sym_case, anon_sym_else,
       anon_sym_async_STAR, anon_sym_sync_STAR])]),
     (55452, 8, [(ACTIONS 3, 1, [anon_sym_SLASH_SLASH]), (ACTIONS 5, 1, [anon_sym_SLASH_STAR]),
       (ACTIONS 7, 1, [anon_sym_SLASH_SLASH_SLASH]), (ACTIONS 9, 1, [sym__block_comment]),
       (ACTIONS 11, 1, [sym__documentation_block_comment]), (STATE 1161, 2, [sym_comment,
       sym_documentation_comment]), (ACTIONS 2930, 12, [anon_sym_QMARK, anon_sym_LT, anon_sym_GT,
       anon_sym_PIPE, anon_sym_AMP, anon_sym_GT_GT, anon_sym_SLASH, anon_sym_BANG, anon_sym_as,
       anon_sym_DOT, anon_sym_QMARK_DOT, anon_sym_async]), (ACTIONS 2928, 24, [anon_sym_LBRACE,
       anon_sym_LBRACK, anon_sym_COMMA, anon_sym_LPAREN, anon_sym_QMARK_QMARK,
       sym_equality_operator, anon_sym_LT_EQ, anon_sym_GT_EQ, anon_sym_CARET, anon_sym_LT_LT,
       anon_sym_GT_GT_GT, sym__additive_operator, anon_sym_STAR, anon_sym_PERCENT,
       anon_sym_TILDE_SLASH, anon_sym_is, anon_sym_DOT_DOT, anon_sym_QMARK_DOT_DOT,
       anon_sym_SEMI, anon_sym_EQ_GT, anon_sym_async_STAR, anon_sym_sync_STAR, anon_sym_AMP_AMP,
       anon_sym_PIPE_PIPE])])]"

lemma small_run_410: "small_run 1160 55392 ts_small_parse_table_410 1162 55512"
  by (simp add: small_simps ts_small_parse_table_410_def)

definition ts_small_parse_table_411 :: "small_group list" where
  "ts_small_parse_table_411 = [
     (55512, 8, [(ACTIONS 3, 1, [anon_sym_SLASH_SLASH]), (ACTIONS 5, 1, [anon_sym_SLASH_STAR]),
       (ACTIONS 7, 1, [anon_sym_SLASH_SLASH_SLASH]), (ACTIONS 9, 1, [sym__block_comment]),
       (ACTIONS 11, 1, [sym__documentation_block_comment]), (STATE 1162, 2, [sym_comment,
       sym_documentation_comment]), (ACTIONS 2882, 12, [anon_sym_QMARK, anon_sym_LT, anon_sym_GT,
       anon_sym_PIPE, anon_sym_AMP, anon_sym_GT_GT, anon_sym_SLASH, anon_sym_BANG, anon_sym_as,
       anon_sym_DOT, anon_sym_QMARK_DOT, anon_sym_async]), (ACTIONS 2880, 24, [anon_sym_LBRACE,
       anon_sym_LBRACK, anon_sym_COMMA, anon_sym_LPAREN, anon_sym_QMARK_QMARK,
       sym_equality_operator, anon_sym_LT_EQ, anon_sym_GT_EQ, anon_sym_CARET, anon_sym_LT_LT,
       anon_sym_GT_GT_GT, sym__additive_operator, anon_sym_STAR, anon_sym_PERCENT,
       anon_sym_TILDE_SLASH, anon_sym_is, anon_sym_DOT_DOT, anon_sym_QMARK_DOT_DOT,
       anon_sym_SEMI, anon_sym_EQ_GT, anon_sym_async_STAR, anon_sym_sync_STAR, anon_sym_AMP_AMP,
       anon_sym_PIPE_PIPE])]),
     (55572, 8, [(ACTIONS 3, 1, [anon_sym_SLASH_SLASH]), (ACTIONS 5, 1, [anon_sym_SLASH_STAR]),
       (ACTIONS 7, 1, [anon_sym_SLASH_SLASH_SLASH]), (ACTIONS 9, 1, [sym__block_comment]),
       (ACTIONS 11, 1, [sym__documentation_block_comment]), (STATE 1163, 2, [sym_comment,
       sym_documentation_comment]), (ACTIONS 1071, 12, [anon_sym_QMARK, anon_sym_LT, anon_sym_GT,
       anon_sym_PIPE, anon_sym_AMP, anon_sym_GT_GT, anon_sym_SLASH, anon_sym_BANG, anon_sym_as,
       anon_sym_DOT, anon_sym_QMARK_DOT, anon_sym_async]), (ACTIONS 1065, 24, [anon_sym_LBRACE,
       anon_sym_LBRACK, anon_sym_COMMA, anon_sym_LPAREN, anon_sym_QMARK_QMARK,
       sym_equality_operator, anon_sym_LT_EQ, anon_sym_GT_EQ, anon_sym_CARET, anon_sym_LT_LT,
       anon_sym_GT_GT_GT, sym__additive_operator, anon_sym_STAR, anon_sym_PERCENT,
       anon_sym_TILDE_SLASH, anon_sym_is, anon_sym_DOT_DOT, anon_sym_QMARK_DOT_DOT,
       anon_sym_SEMI, anon_sym_EQ_GT, anon_sym_async_STAR, anon_sym_sync_STAR, anon_sym_AMP_AMP,
       anon_sym_PIPE_PIPE])])]"

lemma small_run_411: "small_run 1162 55512 ts_small_parse_table_411 1164 55632"
  by (simp add: small_simps ts_small_parse_table_411_def)

definition ts_small_parse_table_412 :: "small_group list" where
  "ts_small_parse_table_412 = [
     (55632, 8, [(ACTIONS 3, 1, [anon_sym_SLASH_SLASH]), (ACTIONS 5, 1, [anon_sym_SLASH_STAR]),
       (ACTIONS 7, 1, [anon_sym_SLASH_SLASH_SLASH]), (ACTIONS 9, 1, [sym__block_comment]),
       (ACTIONS 11, 1, [sym__documentation_block_comment]), (STATE 1164, 2, [sym_comment,
       sym_documentation_comment]), (ACTIONS 2878, 12, [anon_sym_QMARK, anon_sym_LT, anon_sym_GT,
       anon_sym_PIPE, anon_sym_AMP, anon_sym_GT_GT, anon_sym_SLASH, anon_sym_BANG, anon_sym_as,
       anon_sym_DOT, anon_sym_QMARK_DOT, anon_sym_async]), (ACTIONS 2876, 24, [anon_sym_LBRACE,
       anon_sym_LBRACK, anon_sym_COMMA, anon_sym_LPAREN, anon_sym_QMARK_QMARK,
       sym_equality_operator, anon_sym_LT_EQ, anon_sym_GT_EQ, anon_sym_CARET, anon_sym_LT_LT,
       anon_sym_GT_GT_GT, sym__additive_operator, anon_sym_STAR, anon_sym_PERCENT,
       anon_sym_TILDE_SLASH, anon_sym_is, anon_sym_DOT_DOT, anon_sym_QMARK_DOT_DOT,
       anon_sym_SEMI, anon_sym_EQ_GT, anon_sym_async_STAR, anon_sym_sync_STAR, anon_sym_AMP_AMP,
       anon_sym_PIPE_PIPE])]),
     (55692, 8, [(ACTIONS 3, 1, [anon_sym_SLASH_SLASH]), (ACTIONS 5, 1, [anon_sym_SLASH_STAR]),
       (ACTIONS 7, 1, [anon_sym_SLASH_SLASH_SLASH]), (ACTIONS 9, 1, [sym__block_comment]),
       (ACTIONS 11, 1, [sym__documentation_block_comment]), (STATE 1165, 2, [sym_comment,
       sym_documentation_comment]), (ACTIONS 2816, 12, [anon_sym_QMARK, anon_sym_LT, anon_sym_GT,
       anon_sym_PIPE, anon_sym_AMP, anon_sym_GT_GT, anon_sym_SLASH, anon_sym_BANG, anon_sym_as,
       anon_sym_DOT, anon_sym_QMARK_DOT, anon_sym_async]), (ACTIONS 2814, 24, [anon_sym_LBRACE,
       anon_sym_LBRACK, anon_sym_COMMA, anon_sym_LPAREN, anon_sym_QMARK_QMARK,
       sym_equality_operator, anon_sym_LT_EQ, anon_sym_GT_EQ, anon_sym_CARET, anon_sym_LT_LT,
       anon_sym_GT_GT_GT, sym__additive_operator, anon_sym_STAR, anon_sym_PERCENT,
       anon_sym_TILDE_SLASH, anon_sym_is, anon_sym_DOT_DOT, anon_sym_QMARK_DOT_DOT,
       anon_sym_SEMI, anon_sym_EQ_GT, anon_sym_async_STAR, anon_sym_sync_STAR, anon_sym_AMP_AMP,
       anon_sym_PIPE_PIPE])])]"

lemma small_run_412: "small_run 1164 55632 ts_small_parse_table_412 1166 55752"
  by (simp add: small_simps ts_small_parse_table_412_def)

definition ts_small_parse_table_413 :: "small_group list" where
  "ts_small_parse_table_413 = [
     (55752, 8, [(ACTIONS 3, 1, [anon_sym_SLASH_SLASH]), (ACTIONS 5, 1, [anon_sym_SLASH_STAR]),
       (ACTIONS 7, 1, [anon_sym_SLASH_SLASH_SLASH]), (ACTIONS 9, 1, [sym__block_comment]),
       (ACTIONS 11, 1, [sym__documentation_block_comment]), (STATE 1166, 2, [sym_comment,
       sym_documentation_comment]), (ACTIONS 2986, 12, [anon_sym_QMARK, anon_sym_LT, anon_sym_GT,
       anon_sym_PIPE, anon_sym_AMP, anon_sym_GT_GT, anon_sym_SLASH, anon_sym_BANG, anon_sym_as,
       anon_sym_DOT, anon_sym_QMARK_DOT, anon_sym_async]), (ACTIONS 2984, 24, [anon_sym_LBRACE,
       anon_sym_LBRACK, anon_sym_COMMA, anon_sym_LPAREN, anon_sym_QMARK_QMARK,
       sym_equality_operator, anon_sym_LT_EQ, anon_sym_GT_EQ, anon_sym_CARET, anon_sym_LT_LT,
       anon_sym_GT_GT_GT, sym__additive_operator, anon_sym_STAR, anon_sym_PERCENT,
       anon_sym_TILDE_SLASH, anon_sym_is, anon_sym_DOT_DOT, anon_sym_QMARK_DOT_DOT,
       anon_sym_SEMI, anon_sym_EQ_GT, anon_sym_async_STAR, anon_sym_sync_STAR, anon_sym_AMP_AMP,
       anon_sym_PIPE_PIPE])]),
     (55812, 8, [(ACTIONS 3, 1, [anon_sym_SLASH_SLASH]), (ACTIONS 5, 1, [anon_sym_SLASH_STAR]),
       (ACTIONS 7, 1, [anon_sym_SLASH_SLASH_SLASH]), (ACTIONS 9, 1, [sym__block_comment]),
       (ACTIONS 11, 1, [sym__documentation_block_comment]), (STATE 1167, 2, [sym_comment,
       sym_documentation_comment]), (ACTIONS 2962, 12, [anon_sym_QMARK, anon_sym_LT, anon_sym_GT,
       anon_sym_PIPE, anon_sym_AMP, anon_sym_GT_GT, anon_sym_SLASH, anon_sym_BANG, anon_sym_as,
       anon_sym_DOT, anon_sym_QMARK_DOT, anon_sym_async]), (ACTIONS 2960, 24, [anon_sym_LBRACE,
       anon_sym_LBRACK, anon_sym_COMMA, anon_sym_LPAREN, anon_sym_QMARK_QMARK,
       sym_equality_operator, anon_sym_LT_EQ, anon_sym_GT_EQ, anon_sym_CARET, anon_sym_LT_LT,
       anon_sym_GT_GT_GT, sym__additive_operator, anon_sym_STAR, anon_sym_PERCENT,
       anon_sym_TILDE_SLASH, anon_sym_is, anon_sym_DOT_DOT, anon_sym_QMARK_DOT_DOT,
       anon_sym_SEMI, anon_sym_EQ_GT, anon_sym_async_STAR, anon_sym_sync_STAR, anon_sym_AMP_AMP,
       anon_sym_PIPE_PIPE])])]"

lemma small_run_413: "small_run 1166 55752 ts_small_parse_table_413 1168 55872"
  by (simp add: small_simps ts_small_parse_table_413_def)

definition ts_small_parse_table_414 :: "small_group list" where
  "ts_small_parse_table_414 = [
     (55872, 8, [(ACTIONS 3, 1, [anon_sym_SLASH_SLASH]), (ACTIONS 5, 1, [anon_sym_SLASH_STAR]),
       (ACTIONS 7, 1, [anon_sym_SLASH_SLASH_SLASH]), (ACTIONS 9, 1, [sym__block_comment]),
       (ACTIONS 11, 1, [sym__documentation_block_comment]), (STATE 1168, 2, [sym_comment,
       sym_documentation_comment]), (ACTIONS 3034, 12, [anon_sym_QMARK, anon_sym_LT, anon_sym_GT,
       anon_sym_PIPE, anon_sym_AMP, anon_sym_GT_GT, anon_sym_SLASH, anon_sym_BANG, anon_sym_as,
       anon_sym_DOT, anon_sym_QMARK_DOT, anon_sym_async]), (ACTIONS 3032, 24, [anon_sym_LBRACE,
       anon_sym_LBRACK, anon_sym_COMMA, anon_sym_LPAREN, anon_sym_QMARK_QMARK,
       sym_equality_operator, anon_sym_LT_EQ, anon_sym_GT_EQ, anon_sym_CARET, anon_sym_LT_LT,
       anon_sym_GT_GT_GT, sym__additive_operator, anon_sym_STAR, anon_sym_PERCENT,
       anon_sym_TILDE_SLASH, anon_sym_is, anon_sym_DOT_DOT, anon_sym_QMARK_DOT_DOT,
       anon_sym_SEMI, anon_sym_EQ_GT, anon_sym_async_STAR, anon_sym_sync_STAR, anon_sym_AMP_AMP,
       anon_sym_PIPE_PIPE])]),
     (55932, 8, [(ACTIONS 3, 1, [anon_sym_SLASH_SLASH]), (ACTIONS 5, 1, [anon_sym_SLASH_STAR]),
       (ACTIONS 7, 1, [anon_sym_SLASH_SLASH_SLASH]), (ACTIONS 9, 1, [sym__block_comment]),
       (ACTIONS 11, 1, [sym__documentation_block_comment]), (STATE 1169, 2, [sym_comment,
       sym_documentation_comment]), (ACTIONS 3064, 12, [anon_sym_QMARK, anon_sym_LT, anon_sym_GT,
       anon_sym_PIPE, anon_sym_AMP, anon_sym_GT_GT, anon_sym_SLASH, anon_sym_BANG, anon_sym_as,
       anon_sym_DOT, anon_sym_QMARK_DOT, anon_sym_async]), (ACTIONS 3062, 24, [anon_sym_LBRACE,
       anon_sym_LBRACK, anon_sym_COMMA, anon_sym_LPAREN, anon_sym_QMARK_QMARK,
       sym_equality_operator, anon_sym_LT_EQ, anon_sym_GT_EQ, anon_sym_CARET, anon_sym_LT_LT,
       anon_sym_GT_GT_GT, sym__additive_operator, anon_sym_STAR, anon_sym_PERCENT,
       anon_sym_TILDE_SLASH, anon_sym_is, anon_sym_DOT_DOT, anon_sym_QMARK_DOT_DOT,
       anon_sym_SEMI, anon_sym_EQ_GT, anon_sym_async_STAR, anon_sym_sync_STAR, anon_sym_AMP_AMP,
       anon_sym_PIPE_PIPE])])]"

lemma small_run_414: "small_run 1168 55872 ts_small_parse_table_414 1170 55992"
  by (simp add: small_simps ts_small_parse_table_414_def)

definition ts_small_parse_table_415 :: "small_group list" where
  "ts_small_parse_table_415 = [
     (55992, 8, [(ACTIONS 3, 1, [anon_sym_SLASH_SLASH]), (ACTIONS 5, 1, [anon_sym_SLASH_STAR]),
       (ACTIONS 7, 1, [anon_sym_SLASH_SLASH_SLASH]), (ACTIONS 9, 1, [sym__block_comment]),
       (ACTIONS 11, 1, [sym__documentation_block_comment]), (STATE 1170, 2, [sym_comment,
       sym_documentation_comment]), (ACTIONS 2938, 12, [anon_sym_QMARK, anon_sym_LT, anon_sym_GT,
       anon_sym_PIPE, anon_sym_AMP, anon_sym_GT_GT, anon_sym_SLASH, anon_sym_BANG, anon_sym_as,
       anon_sym_DOT, anon_sym_QMARK_DOT, anon_sym_async]), (ACTIONS 2936, 24, [anon_sym_LBRACE,
       anon_sym_LBRACK, anon_sym_COMMA, anon_sym_LPAREN, anon_sym_QMARK_QMARK,
       sym_equality_operator, anon_sym_LT_EQ, anon_sym_GT_EQ, anon_sym_CARET, anon_sym_LT_LT,
       anon_sym_GT_GT_GT, sym__additive_operator, anon_sym_STAR, anon_sym_PERCENT,
       anon_sym_TILDE_SLASH, anon_sym_is, anon_sym_DOT_DOT, anon_sym_QMARK_DOT_DOT,
       anon_sym_SEMI, anon_sym_EQ_GT, anon_sym_async_STAR, anon_sym_sync_STAR, anon_sym_AMP_AMP,
       anon_sym_PIPE_PIPE])]),
     (56052, 8, [(ACTIONS 3, 1, [anon_sym_SLASH_SLASH]), (ACTIONS 5, 1, [anon_sym_SLASH_STAR]),
       (ACTIONS 7, 1, [anon_sym_SLASH_SLASH_SLASH]), (ACTIONS 9, 1, [sym__block_comment]),
       (ACTIONS 11, 1, [sym__documentation_block_comment]), (STATE 1171, 2, [sym_comment,
       sym_documentation_comment]), (ACTIONS 1674, 12, [anon_sym_QMARK, anon_sym_LT, anon_sym_GT,
       anon_sym_PIPE, anon_sym_AMP, anon_sym_GT_GT, anon_sym_SLASH, anon_sym_BANG, anon_sym_as,
       anon_sym_DOT, anon_sym_QMARK_DOT, anon_sym_async]), (ACTIONS 1676, 24, [anon_sym_LBRACE,
       anon_sym_LBRACK, anon_sym_COMMA, anon_sym_LPAREN, anon_sym_QMARK_QMARK,
       sym_equality_operator, anon_sym_LT_EQ, anon_sym_GT_EQ, anon_sym_CARET, anon_sym_LT_LT,
       anon_sym_GT_GT_GT, sym__additive_operator, anon_sym_STAR, anon_sym_PERCENT,
       anon_sym_TILDE_SLASH, anon_sym_is, anon_sym_DOT_DOT, anon_sym_QMARK_DOT_DOT,
       anon_sym_SEMI, anon_sym_EQ_GT, anon_sym_async_STAR, anon_sym_sync_STAR, anon_sym_AMP_AMP,
       anon_sym_PIPE_PIPE])])]"

lemma small_run_415: "small_run 1170 55992 ts_small_parse_table_415 1172 56112"
  by (simp add: small_simps ts_small_parse_table_415_def)

definition ts_small_parse_table_416 :: "small_group list" where
  "ts_small_parse_table_416 = [
     (56112, 8, [(ACTIONS 3, 1, [anon_sym_SLASH_SLASH]), (ACTIONS 5, 1, [anon_sym_SLASH_STAR]),
       (ACTIONS 7, 1, [anon_sym_SLASH_SLASH_SLASH]), (ACTIONS 9, 1, [sym__block_comment]),
       (ACTIONS 11, 1, [sym__documentation_block_comment]), (STATE 1172, 2, [sym_comment,
       sym_documentation_comment]), (ACTIONS 2946, 12, [anon_sym_QMARK, anon_sym_LT, anon_sym_GT,
       anon_sym_PIPE, anon_sym_AMP, anon_sym_GT_GT, anon_sym_SLASH, anon_sym_BANG, anon_sym_as,
       anon_sym_DOT, anon_sym_QMARK_DOT, anon_sym_async]), (ACTIONS 2944, 24, [anon_sym_LBRACE,
       anon_sym_LBRACK, anon_sym_COMMA, anon_sym_LPAREN, anon_sym_QMARK_QMARK,
       sym_equality_operator, anon_sym_LT_EQ, anon_sym_GT_EQ, anon_sym_CARET, anon_sym_LT_LT,
       anon_sym_GT_GT_GT, sym__additive_operator, anon_sym_STAR, anon_sym_PERCENT,
       anon_sym_TILDE_SLASH, anon_sym_is, anon_sym_DOT_DOT, anon_sym_QMARK_DOT_DOT,
       anon_sym_SEMI, anon_sym_EQ_GT, anon_sym_async_STAR, anon_sym_sync_STAR, anon_sym_AMP_AMP,
       anon_sym_PIPE_PIPE])]),
     (56172, 8, [(ACTIONS 3, 1, [anon_sym_SLASH_SLASH]), (ACTIONS 5, 1, [anon_sym_SLASH_STAR]),
       (ACTIONS 7, 1, [anon_sym_SLASH_SLASH_SLASH]), (ACTIONS 9, 1, [sym__block_comment]),
       (ACTIONS 11, 1, [sym__documentation_block_comment]), (STATE 1173, 2, [sym_comment,
       sym_documentation_comment]), (ACTIONS 2906, 12, [anon_sym_QMARK, anon_sym_LT, anon_sym_GT,
       anon_sym_PIPE, anon_sym_AMP, anon_sym_GT_GT, anon_sym_SLASH, anon_sym_BANG, anon_sym_as,
       anon_sym_DOT, anon_sym_QMARK_DOT, anon_sym_async]), (ACTIONS 2904, 24, [anon_sym_LBRACE,
       anon_sym_LBRACK, anon_sym_COMMA, anon_sym_LPAREN, anon_sym_QMARK_QMARK,
       sym_equality_operator, anon_sym_LT_EQ, anon_sym_GT_EQ, anon_sym_CARET, anon_sym_LT_LT,
       anon_sym_GT_GT_GT, sym__additive_operator, anon_sym_STAR, anon_sym_PERCENT,
       anon_sym_TILDE_SLASH, anon_sym_is, anon_sym_DOT_DOT, anon_sym_QMARK_DOT_DOT,
       anon_sym_SEMI, anon_sym_EQ_GT, anon_sym_async_STAR, anon_sym_sync_STAR, anon_sym_AMP_AMP,
       anon_sym_PIPE_PIPE])])]"

lemma small_run_416: "small_run 1172 56112 ts_small_parse_table_416 1174 56232"
  by (simp add: small_simps ts_small_parse_table_416_def)

definition ts_small_parse_table_417 :: "small_group list" where
  "ts_small_parse_table_417 = [
     (56232, 8, [(ACTIONS 3, 1, [anon_sym_SLASH_SLASH]), (ACTIONS 5, 1, [anon_sym_SLASH_STAR]),
       (ACTIONS 7, 1, [anon_sym_SLASH_SLASH_SLASH]), (ACTIONS 9, 1, [sym__block_comment]),
       (ACTIONS 11, 1, [sym__documentation_block_comment]), (STATE 1174, 2, [sym_comment,
       sym_documentation_comment]), (ACTIONS 2850, 12, [anon_sym_QMARK, anon_sym_LT, anon_sym_GT,
       anon_sym_PIPE, anon_sym_AMP, anon_sym_GT_GT, anon_sym_SLASH, anon_sym_BANG, anon_sym_as,
       anon_sym_DOT, anon_sym_QMARK_DOT, anon_sym_async]), (ACTIONS 2848, 24, [anon_sym_LBRACE,
       anon_sym_LBRACK, anon_sym_COMMA, anon_sym_LPAREN, anon_sym_QMARK_QMARK,
       sym_equality_operator, anon_sym_LT_EQ, anon_sym_GT_EQ, anon_sym_CARET, anon_sym_LT_LT,
       anon_sym_GT_GT_GT, sym__additive_operator, anon_sym_STAR, anon_sym_PERCENT,
       anon_sym_TILDE_SLASH, anon_sym_is, anon_sym_DOT_DOT, anon_sym_QMARK_DOT_DOT,
       anon_sym_SEMI, anon_sym_EQ_GT, anon_sym_async_STAR, anon_sym_sync_STAR, anon_sym_AMP_AMP,
       anon_sym_PIPE_PIPE])]),
     (56292, 8, [(ACTIONS 3, 1, [anon_sym_SLASH_SLASH]), (ACTIONS 5, 1, [anon_sym_SLASH_STAR]),
       (ACTIONS 7, 1, [anon_sym_SLASH_SLASH_SLASH]), (ACTIONS 9, 1, [sym__block_comment]),
       (ACTIONS 11, 1, [sym__documentation_block_comment]), (STATE 1175, 2, [sym_comment,
       sym_documentation_comment]), (ACTIONS 2854, 12, [anon_sym_QMARK, anon_sym_LT, anon_sym_GT,
       anon_sym_PIPE, anon_sym_AMP, anon_sym_GT_GT, anon_sym_SLASH, anon_sym_BANG, anon_sym_as,
       anon_sym_DOT, anon_sym_QMARK_DOT, anon_sym_async]), (ACTIONS 2852, 24, [anon_sym_LBRACE,
       anon_sym_LBRACK, anon_sym_COMMA, anon_sym_LPAREN, anon_sym_QMARK_QMARK,
       sym_equality_operator, anon_sym_LT_EQ, anon_sym_GT_EQ, anon_sym_CARET, anon_sym_LT_LT,
       anon_sym_GT_GT_GT, sym__additive_operator, anon_sym_STAR, anon_sym_PERCENT,
       anon_sym_TILDE_SLASH, anon_sym_is, anon_sym_DOT_DOT, anon_sym_QMARK_DOT_DOT,
       anon_sym_SEMI, anon_sym_EQ_GT, anon_sym_async_STAR, anon_sym_sync_STAR, anon_sym_AMP_AMP,
       anon_sym_PIPE_PIPE])])]"

lemma small_run_417: "small_run 1174 56232 ts_small_parse_table_417 1176 56352"
  by (simp add: small_simps ts_small_parse_table_417_def)

definition ts_small_parse_table_418 :: "small_group list" where
  "ts_small_parse_table_418 = [
     (56352, 8, [(ACTIONS 3, 1, [anon_sym_SLASH_SLASH]), (ACTIONS 5, 1, [anon_sym_SLASH_STAR]),
       (ACTIONS 7, 1, [anon_sym_SLASH_SLASH_SLASH]), (ACTIONS 9, 1, [sym__block_comment]),
       (ACTIONS 11, 1, [sym__documentation_block_comment]), (STATE 1176, 2, [sym_comment,
       sym_documentation_comment]), (ACTIONS 3092, 12, [anon_sym_QMARK, anon_sym_LT, anon_sym_GT,
       anon_sym_PIPE, anon_sym_AMP, anon_sym_GT_GT, anon_sym_SLASH, anon_sym_BANG, anon_sym_as,
       anon_sym_DOT, anon_sym_QMARK_DOT, anon_sym_async]), (ACTIONS 3090, 24, [anon_sym_LBRACE,
       anon_sym_LBRACK, anon_sym_COMMA, anon_sym_LPAREN, anon_sym_QMARK_QMARK,
       sym_equality_operator, anon_sym_LT_EQ, anon_sym_GT_EQ, anon_sym_CARET, anon_sym_LT_LT,
       anon_sym_GT_GT_GT, sym__additive_operator, anon_sym_STAR, anon_sym_PERCENT,
       anon_sym_TILDE_SLASH, anon_sym_is, anon_sym_DOT_DOT, anon_sym_QMARK_DOT_DOT,
       anon_sym_SEMI, anon_sym_EQ_GT, anon_sym_async_STAR, anon_sym_sync_STAR, anon_sym_AMP_AMP,
       anon_sym_PIPE_PIPE])]),
     (56412, 13, [(ACTIONS 3, 1, [anon_sym_SLASH_SLASH]), (ACTIONS 5, 1,
       [anon_sym_SLASH_STAR]), (ACTIONS 7, 1, [anon_sym_SLASH_SLASH_SLASH]), (ACTIONS 9, 1,
       [sym__block_comment]), (ACTIONS 11, 1, [sym__documentation_block_comment]), (ACTIONS 2477,
       1, [anon_sym_SLASH]), (STATE 424, 1, [sym_multiplicative_operator]), (STATE 1147, 1,
       [aux_sym_multiplicative_expression_repeat1]), (STATE 1416, 1,
       [sym__multiplicative_operator]), (STATE 1177, 2, [sym_comment,
       sym_documentation_comment]), (ACTIONS 2475, 3, [anon_sym_STAR, anon_sym_PERCENT,
       anon_sym_TILDE_SLASH]), (ACTIONS 2491, 6, [anon_sym_QMARK, anon_sym_LT, anon_sym_GT,
       anon_sym_PIPE, anon_sym_AMP, anon_sym_GT_GT]), (ACTIONS 2489, 23, [anon_sym_RBRACE,
       anon_sym_COMMA, anon_sym_RBRACK, anon_sym_COLON, anon_sym_RPAREN, anon_sym_QMARK_QMARK,
       sym_equality_operator, anon_sym_LT_EQ, anon_sym_GT_EQ, anon_sym_CARET, anon_sym_LT_LT,
       anon_sym_GT_GT_GT, sym__additive_operator, anon_sym_is, anon_sym_as, anon_sym_DOT_DOT,
       anon_sym_QMARK_DOT_DOT, anon_sym_SEMI, anon_sym_EQ_GT, anon_sym_case, anon_sym_else,
       anon_sym_AMP_AMP, anon_sym_PIPE_PIPE])])]"

lemma small_run_418: "small_run 1176 56352 ts_small_parse_table_418 1178 56482"
  by (simp add: small_simps ts_small_parse_table_418_def)

definition ts_small_parse_table_419 :: "small_group list" where
  "ts_small_parse_table_419 = [
     (56482, 8, [(ACTIONS 3, 1, [anon_sym_SLASH_SLASH]), (ACTIONS 5, 1, [anon_sym_SLASH_STAR]),
       (ACTIONS 7, 1, [anon_sym_SLASH_SLASH_SLASH]), (ACTIONS 9, 1, [sym__block_comment]),
       (ACTIONS 11, 1, [sym__documentation_block_comment]), (STATE 1178, 2, [sym_comment,
       sym_documentation_comment]), (ACTIONS 1881, 12, [anon_sym_QMARK, anon_sym_LT, anon_sym_GT,
       anon_sym_PIPE, anon_sym_AMP, anon_sym_GT_GT, anon_sym_SLASH, anon_sym_BANG, anon_sym_as,
       anon_sym_DOT, anon_sym_QMARK_DOT, anon_sym_async]), (ACTIONS 1879, 24, [anon_sym_LBRACE,
       anon_sym_LBRACK, anon_sym_COMMA, anon_sym_LPAREN, anon_sym_QMARK_QMARK,
       sym_equality_operator, anon_sym_LT_EQ, anon_sym_GT_EQ, anon_sym_CARET, anon_sym_LT_LT,
       anon_sym_GT_GT_GT, sym__additive_operator, anon_sym_STAR, anon_sym_PERCENT,
       anon_sym_TILDE_SLASH, anon_sym_is, anon_sym_DOT_DOT, anon_sym_QMARK_DOT_DOT,
       anon_sym_SEMI, anon_sym_EQ_GT, anon_sym_async_STAR, anon_sym_sync_STAR, anon_sym_AMP_AMP,
       anon_sym_PIPE_PIPE])]),
     (56542, 8, [(ACTIONS 3, 1, [anon_sym_SLASH_SLASH]), (ACTIONS 5, 1, [anon_sym_SLASH_STAR]),
       (ACTIONS 7, 1, [anon_sym_SLASH_SLASH_SLASH]), (ACTIONS 9, 1, [sym__block_comment]),
       (ACTIONS 11, 1, [sym__documentation_block_comment]), (STATE 1179, 2, [sym_comment,
       sym_documentation_comment]), (ACTIONS 2982, 12, [anon_sym_QMARK, anon_sym_LT, anon_sym_GT,
       anon_sym_PIPE, anon_sym_AMP, anon_sym_GT_GT, anon_sym_SLASH, anon_sym_BANG, anon_sym_as,
       anon_sym_DOT, anon_sym_QMARK_DOT, anon_sym_async]), (ACTIONS 2980, 24, [anon_sym_LBRACE,
       anon_sym_LBRACK, anon_sym_COMMA, anon_sym_LPAREN, anon_sym_QMARK_QMARK,
       sym_equality_operator, anon_sym_LT_EQ, anon_sym_GT_EQ, anon_sym_CARET, anon_sym_LT_LT,
       anon_sym_GT_GT_GT, sym__additive_operator, anon_sym_STAR, anon_sym_PERCENT,
       anon_sym_TILDE_SLASH, anon_sym_is, anon_sym_DOT_DOT, anon_sym_QMARK_DOT_DOT,
       anon_sym_SEMI, anon_sym_EQ_GT, anon_sym_async_STAR, anon_sym_sync_STAR, anon_sym_AMP_AMP,
       anon_sym_PIPE_PIPE])])]"

lemma small_run_419: "small_run 1178 56482 ts_small_parse_table_419 1180 56602"
  by (simp add: small_simps ts_small_parse_table_419_def)

definition ts_small_parse_table_420 :: "small_group list" where
  "ts_small_parse_table_420 = [
     (56602, 8, [(ACTIONS 3, 1, [anon_sym_SLASH_SLASH]), (ACTIONS 5, 1, [anon_sym_SLASH_STAR]),
       (ACTIONS 7, 1, [anon_sym_SLASH_SLASH_SLASH]), (ACTIONS 9, 1, [sym__block_comment]),
       (ACTIONS 11, 1, [sym__documentation_block_comment]), (STATE 1180, 2, [sym_comment,
       sym_documentation_comment]), (ACTIONS 3014, 12, [anon_sym_QMARK, anon_sym_LT, anon_sym_GT,
       anon_sym_PIPE, anon_sym_AMP, anon_sym_GT_GT, anon_sym_SLASH, anon_sym_BANG, anon_sym_as,
       anon_sym_DOT, anon_sym_QMARK_DOT, anon_sym_async]), (ACTIONS 3012, 24, [anon_sym_LBRACE,
       anon_sym_LBRACK, anon_sym_COMMA, anon_sym_LPAREN, anon_sym_QMARK_QMARK,
       sym_equality_operator, anon_sym_LT_EQ, anon_sym_GT_EQ, anon_sym_CARET, anon_sym_LT_LT,
       anon_sym_GT_GT_GT, sym__additive_operator, anon_sym_STAR, anon_sym_PERCENT,
       anon_sym_TILDE_SLASH, anon_sym_is, anon_sym_DOT_DOT, anon_sym_QMARK_DOT_DOT,
       anon_sym_SEMI, anon_sym_EQ_GT, anon_sym_async_STAR, anon_sym_sync_STAR, anon_sym_AMP_AMP,
       anon_sym_PIPE_PIPE])]),
     (56662, 8, [(ACTIONS 3, 1, [anon_sym_SLASH_SLASH]), (ACTIONS 5, 1, [anon_sym_SLASH_STAR]),
       (ACTIONS 7, 1, [anon_sym_SLASH_SLASH_SLASH]), (ACTIONS 9, 1, [sym__block_comment]),
       (ACTIONS 11, 1, [sym__documentation_block_comment]), (STATE 1181, 2, [sym_comment,
       sym_documentation_comment]), (ACTIONS 2914, 12, [anon_sym_QMARK, anon_sym_LT, anon_sym_GT,
       anon_sym_PIPE, anon_sym_AMP, anon_sym_GT_GT, anon_sym_SLASH, anon_sym_BANG, anon_sym_as,
       anon_sym_DOT, anon_sym_QMARK_DOT, anon_sym_async]), (ACTIONS 2912, 24, [anon_sym_LBRACE,
       anon_sym_LBRACK, anon_sym_COMMA, anon_sym_LPAREN, anon_sym_QMARK_QMARK,
       sym_equality_operator, anon_sym_LT_EQ, anon_sym_GT_EQ, anon_sym_CARET, anon_sym_LT_LT,
       anon_sym_GT_GT_GT, sym__additive_operator, anon_sym_STAR, anon_sym_PERCENT,
       anon_sym_TILDE_SLASH, anon_sym_is, anon_sym_DOT_DOT, anon_sym_QMARK_DOT_DOT,
       anon_sym_SEMI, anon_sym_EQ_GT, anon_sym_async_STAR, anon_sym_sync_STAR, anon_sym_AMP_AMP,
       anon_sym_PIPE_PIPE])])]"

lemma small_run_420: "small_run 1180 56602 ts_small_parse_table_420 1182 56722"
  by (simp add: small_simps ts_small_parse_table_420_def)

definition ts_small_parse_table_421 :: "small_group list" where
  "ts_small_parse_table_421 = [
     (56722, 8, [(ACTIONS 3, 1, [anon_sym_SLASH_SLASH]), (ACTIONS 5, 1, [anon_sym_SLASH_STAR]),
       (ACTIONS 7, 1, [anon_sym_SLASH_SLASH_SLASH]), (ACTIONS 9, 1, [sym__block_comment]),
       (ACTIONS 11, 1, [sym__documentation_block_comment]), (STATE 1182, 2, [sym_comment,
       sym_documentation_comment]), (ACTIONS 2990, 12, [anon_sym_QMARK, anon_sym_LT, anon_sym_GT,
       anon_sym_PIPE, anon_sym_AMP, anon_sym_GT_GT, anon_sym_SLASH, anon_sym_BANG, anon_sym_as,
       anon_sym_DOT, anon_sym_QMARK_DOT, anon_sym_async]), (ACTIONS 2988, 24, [anon_sym_LBRACE,
       anon_sym_LBRACK, anon_sym_COMMA, anon_sym_LPAREN, anon_sym_QMARK_QMARK,
       sym_equality_operator, anon_sym_LT_EQ, anon_sym_GT_EQ, anon_sym_CARET, anon_sym_LT_LT,
       anon_sym_GT_GT_GT, sym__additive_operator, anon_sym_STAR, anon_sym_PERCENT,
       anon_sym_TILDE_SLASH, anon_sym_is, anon_sym_DOT_DOT, anon_sym_QMARK_DOT_DOT,
       anon_sym_SEMI, anon_sym_EQ_GT, anon_sym_async_STAR, anon_sym_sync_STAR, anon_sym_AMP_AMP,
       anon_sym_PIPE_PIPE])]),
     (56782, 8, [(ACTIONS 3, 1, [anon_sym_SLASH_SLASH]), (ACTIONS 5, 1, [anon_sym_SLASH_STAR]),
       (ACTIONS 7, 1, [anon_sym_SLASH_SLASH_SLASH]), (ACTIONS 9, 1, [sym__block_comment]),
       (ACTIONS 11, 1, [sym__documentation_block_comment]), (STATE 1183, 2, [sym_comment,
       sym_documentation_comment]), (ACTIONS 2820, 12, [anon_sym_QMARK, anon_sym_LT, anon_sym_GT,
       anon_sym_PIPE, anon_sym_AMP, anon_sym_GT_GT, anon_sym_SLASH, anon_sym_BANG, anon_sym_as,
       anon_sym_DOT, anon_sym_QMARK_DOT, anon_sym_async]), (ACTIONS 2818, 24, [anon_sym_LBRACE,
       anon_sym_LBRACK, anon_sym_COMMA, anon_sym_LPAREN, anon_sym_QMARK_QMARK,
       sym_equality_operator, anon_sym_LT_EQ, anon_sym_GT_EQ, anon_sym_CARET, anon_sym_LT_LT,
       anon_sym_GT_GT_GT, sym__additive_operator, anon_sym_STAR, anon_sym_PERCENT,
       anon_sym_TILDE_SLASH, anon_sym_is, anon_sym_DOT_DOT, anon_sym_QMARK_DOT_DOT,
       anon_sym_SEMI, anon_sym_EQ_GT, anon_sym_async_STAR, anon_sym_sync_STAR, anon_sym_AMP_AMP,
       anon_sym_PIPE_PIPE])])]"

lemma small_run_421: "small_run 1182 56722 ts_small_parse_table_421 1184 56842"
  by (simp add: small_simps ts_small_parse_table_421_def)

definition ts_small_parse_table_422 :: "small_group list" where
  "ts_small_parse_table_422 = [
     (56842, 8, [(ACTIONS 3, 1, [anon_sym_SLASH_SLASH]), (ACTIONS 5, 1, [anon_sym_SLASH_STAR]),
       (ACTIONS 7, 1, [anon_sym_SLASH_SLASH_SLASH]), (ACTIONS 9, 1, [sym__block_comment]),
       (ACTIONS 11, 1, [sym__documentation_block_comment]), (STATE 1184, 2, [sym_comment,
       sym_documentation_comment]), (ACTIONS 2842, 12, [anon_sym_QMARK, anon_sym_LT, anon_sym_GT,
       anon_sym_PIPE, anon_sym_AMP, anon_sym_GT_GT, anon_sym_SLASH, anon_sym_BANG, anon_sym_as,
       anon_sym_DOT, anon_sym_QMARK_DOT, anon_sym_async]), (ACTIONS 2840, 24, [anon_sym_LBRACE,
       anon_sym_LBRACK, anon_sym_COMMA, anon_sym_LPAREN, anon_sym_QMARK_QMARK,
       sym_equality_operator, anon_sym_LT_EQ, anon_sym_GT_EQ, anon_sym_CARET, anon_sym_LT_LT,
       anon_sym_GT_GT_GT, sym__additive_operator, anon_sym_STAR, anon_sym_PERCENT,
       anon_sym_TILDE_SLASH, anon_sym_is, anon_sym_DOT_DOT, anon_sym_QMARK_DOT_DOT,
       anon_sym_SEMI, anon_sym_EQ_GT, anon_sym_async_STAR, anon_sym_sync_STAR, anon_sym_AMP_AMP,
       anon_sym_PIPE_PIPE])]),
     (56902, 8, [(ACTIONS 3, 1, [anon_sym_SLASH_SLASH]), (ACTIONS 5, 1, [anon_sym_SLASH_STAR]),
       (ACTIONS 7, 1, [anon_sym_SLASH_SLASH_SLASH]), (ACTIONS 9, 1, [sym__block_comment]),
       (ACTIONS 11, 1, [sym__documentation_block_comment]), (STATE 1185, 2, [sym_comment,
       sym_documentation_comment]), (ACTIONS 1879, 11, [anon_sym_RBRACE, anon_sym_LBRACK,
       anon_sym_COMMA, anon_sym_LPAREN, anon_sym_LT, anon_sym_BANG, anon_sym_DOT,
       anon_sym_QMARK_DOT, anon_sym_SEMI, anon_sym_AT, sym_part_of_builtin]), (ACTIONS 1881, 25,
       [anon_sym_QMARK, anon_sym_part, anon_sym_enum, anon_sym_final, anon_sym_inline,
       anon_sym_class, anon_sym_extension, sym_void_type, anon_sym_var, anon_sym_library,
       anon_sym_export, anon_sym_Function, anon_sym_get, anon_sym_import, anon_sym_interface,
       anon_sym_base, anon_sym_abstract, anon_sym_sealed, anon_sym_mixin, anon_sym_set,
       anon_sym_typedef, sym_const_builtin, anon_sym_late, anon_sym_external, sym_identifier])])]"

lemma small_run_422: "small_run 1184 56842 ts_small_parse_table_422 1186 56962"
  by (simp add: small_simps ts_small_parse_table_422_def)

definition ts_small_parse_table_423 :: "small_group list" where
  "ts_small_parse_table_423 = [
     (56962, 8, [(ACTIONS 3, 1, [anon_sym_SLASH_SLASH]), (ACTIONS 5, 1, [anon_sym_SLASH_STAR]),
       (ACTIONS 7, 1, [anon_sym_SLASH_SLASH_SLASH]), (ACTIONS 9, 1, [sym__block_comment]),
       (ACTIONS 11, 1, [sym__documentation_block_comment]), (STATE 1186, 2, [sym_comment,
       sym_documentation_comment]), (ACTIONS 1277, 12, [anon_sym_QMARK, anon_sym_LT, anon_sym_GT,
       anon_sym_PIPE, anon_sym_AMP, anon_sym_GT_GT, anon_sym_SLASH, anon_sym_BANG, anon_sym_as,
       anon_sym_DOT, anon_sym_QMARK_DOT, anon_sym_async]), (ACTIONS 1257, 24, [anon_sym_LBRACE,
       anon_sym_LBRACK, anon_sym_COMMA, anon_sym_LPAREN, anon_sym_QMARK_QMARK,
       sym_equality_operator, anon_sym_LT_EQ, anon_sym_GT_EQ, anon_sym_CARET, anon_sym_LT_LT,
       anon_sym_GT_GT_GT, sym__additive_operator, anon_sym_STAR, anon_sym_PERCENT,
       anon_sym_TILDE_SLASH, anon_sym_is, anon_sym_DOT_DOT, anon_sym_QMARK_DOT_DOT,
       anon_sym_SEMI, anon_sym_EQ_GT, anon_sym_async_STAR, anon_sym_sync_STAR, anon_sym_AMP_AMP,
       anon_sym_PIPE_PIPE])]),
     (57022, 8, [(ACTIONS 3, 1, [anon_sym_SLASH_SLASH]), (ACTIONS 5, 1, [anon_sym_SLASH_STAR]),
       (ACTIONS 7, 1, [anon_sym_SLASH_SLASH_SLASH]), (ACTIONS 9, 1, [sym__block_comment]),
       (ACTIONS 11, 1, [sym__documentation_block_comment]), (STATE 1187, 2, [sym_comment,
       sym_documentation_comment]), (ACTIONS 2874, 12, [anon_sym_QMARK, anon_sym_LT, anon_sym_GT,
       anon_sym_PIPE, anon_sym_AMP, anon_sym_GT_GT, anon_sym_SLASH, anon_sym_BANG, anon_sym_as,
       anon_sym_DOT, anon_sym_QMARK_DOT, anon_sym_async]), (ACTIONS 2872, 24, [anon_sym_LBRACE,
       anon_sym_LBRACK, anon_sym_COMMA, anon_sym_LPAREN, anon_sym_QMARK_QMARK,
       sym_equality_operator, anon_sym_LT_EQ, anon_sym_GT_EQ, anon_sym_CARET, anon_sym_LT_LT,
       anon_sym_GT_GT_GT, sym__additive_operator, anon_sym_STAR, anon_sym_PERCENT,
       anon_sym_TILDE_SLASH, anon_sym_is, anon_sym_DOT_DOT, anon_sym_QMARK_DOT_DOT,
       anon_sym_SEMI, anon_sym_EQ_GT, anon_sym_async_STAR, anon_sym_sync_STAR, anon_sym_AMP_AMP,
       anon_sym_PIPE_PIPE])])]"

lemma small_run_423: "small_run 1186 56962 ts_small_parse_table_423 1188 57082"
  by (simp add: small_simps ts_small_parse_table_423_def)

definition ts_small_parse_table_424 :: "small_group list" where
  "ts_small_parse_table_424 = [
     (57082, 8, [(ACTIONS 3, 1, [anon_sym_SLASH_SLASH]), (ACTIONS 5, 1, [anon_sym_SLASH_STAR]),
       (ACTIONS 7, 1, [anon_sym_SLASH_SLASH_SLASH]), (ACTIONS 9, 1, [sym__block_comment]),
       (ACTIONS 11, 1, [sym__documentation_block_comment]), (STATE 1188, 2, [sym_comment,
       sym_documentation_comment]), (ACTIONS 3060, 12, [anon_sym_QMARK, anon_sym_LT, anon_sym_GT,
       anon_sym_PIPE, anon_sym_AMP, anon_sym_GT_GT, anon_sym_SLASH, anon_sym_BANG, anon_sym_as,
       anon_sym_DOT, anon_sym_QMARK_DOT, anon_sym_async]), (ACTIONS 3058, 24, [anon_sym_LBRACE,
       anon_sym_LBRACK, anon_sym_COMMA, anon_sym_LPAREN, anon_sym_QMARK_QMARK,
       sym_equality_operator, anon_sym_LT_EQ, anon_sym_GT_EQ, anon_sym_CARET, anon_sym_LT_LT,
       anon_sym_GT_GT_GT, sym__additive_operator, anon_sym_STAR, anon_sym_PERCENT,
       anon_sym_TILDE_SLASH, anon_sym_is, anon_sym_DOT_DOT, anon_sym_QMARK_DOT_DOT,
       anon_sym_SEMI, anon_sym_EQ_GT, anon_sym_async_STAR, anon_sym_sync_STAR, anon_sym_AMP_AMP,
       anon_sym_PIPE_PIPE])]),
     (57142, 8, [(ACTIONS 3, 1, [anon_sym_SLASH_SLASH]), (ACTIONS 5, 1, [anon_sym_SLASH_STAR]),
       (ACTIONS 7, 1, [anon_sym_SLASH_SLASH_SLASH]), (ACTIONS 9, 1, [sym__block_comment]),
       (ACTIONS 11, 1, [sym__documentation_block_comment]), (STATE 1189, 2, [sym_comment,
       sym_documentation_comment]), (ACTIONS 2838, 12, [anon_sym_QMARK, anon_sym_LT, anon_sym_GT,
       anon_sym_PIPE, anon_sym_AMP, anon_sym_GT_GT, anon_sym_SLASH, anon_sym_BANG, anon_sym_as,
       anon_sym_DOT, anon_sym_QMARK_DOT, anon_sym_async]), (ACTIONS 2836, 24, [anon_sym_LBRACE,
       anon_sym_LBRACK, anon_sym_COMMA, anon_sym_LPAREN, anon_sym_QMARK_QMARK,
       sym_equality_operator, anon_sym_LT_EQ, anon_sym_GT_EQ, anon_sym_CARET, anon_sym_LT_LT,
       anon_sym_GT_GT_GT, sym__additive_operator, anon_sym_STAR, anon_sym_PERCENT,
       anon_sym_TILDE_SLASH, anon_sym_is, anon_sym_DOT_DOT, anon_sym_QMARK_DOT_DOT,
       anon_sym_SEMI, anon_sym_EQ_GT, anon_sym_async_STAR, anon_sym_sync_STAR, anon_sym_AMP_AMP,
       anon_sym_PIPE_PIPE])])]"

lemma small_run_424: "small_run 1188 57082 ts_small_parse_table_424 1190 57202"
  by (simp add: small_simps ts_small_parse_table_424_def)

definition ts_small_parse_table_425 :: "small_group list" where
  "ts_small_parse_table_425 = [
     (57202, 8, [(ACTIONS 3, 1, [anon_sym_SLASH_SLASH]), (ACTIONS 5, 1, [anon_sym_SLASH_STAR]),
       (ACTIONS 7, 1, [anon_sym_SLASH_SLASH_SLASH]), (ACTIONS 9, 1, [sym__block_comment]),
       (ACTIONS 11, 1, [sym__documentation_block_comment]), (STATE 1190, 2, [sym_comment,
       sym_documentation_comment]), (ACTIONS 2499, 12, [anon_sym_QMARK, anon_sym_LT, anon_sym_GT,
       anon_sym_PIPE, anon_sym_AMP, anon_sym_GT_GT, anon_sym_SLASH, anon_sym_BANG, anon_sym_as,
       anon_sym_DOT, anon_sym_QMARK_DOT, anon_sym_async]), (ACTIONS 2497, 24, [anon_sym_LBRACE,
       anon_sym_LBRACK, anon_sym_COMMA, anon_sym_LPAREN, anon_sym_QMARK_QMARK,
       sym_equality_operator, anon_sym_LT_EQ, anon_sym_GT_EQ, anon_sym_CARET, anon_sym_LT_LT,
       anon_sym_GT_GT_GT, sym__additive_operator, anon_sym_STAR, anon_sym_PERCENT,
       anon_sym_TILDE_SLASH, anon_sym_is, anon_sym_DOT_DOT, anon_sym_QMARK_DOT_DOT,
       anon_sym_SEMI, anon_sym_EQ_GT, anon_sym_async_STAR, anon_sym_sync_STAR, anon_sym_AMP_AMP,
       anon_sym_PIPE_PIPE])]),
     (57262, 8, [(ACTIONS 3, 1, [anon_sym_SLASH_SLASH]), (ACTIONS 5, 1, [anon_sym_SLASH_STAR]),
       (ACTIONS 7, 1, [anon_sym_SLASH_SLASH_SLASH]), (ACTIONS 9, 1, [sym__block_comment]),
       (ACTIONS 11, 1, [sym__documentation_block_comment]), (STATE 1191, 2, [sym_comment,
       sym_documentation_comment]), (ACTIONS 2934, 12, [anon_sym_QMARK, anon_sym_LT, anon_sym_GT,
       anon_sym_PIPE, anon_sym_AMP, anon_sym_GT_GT, anon_sym_SLASH, anon_sym_BANG, anon_sym_as,
       anon_sym_DOT, anon_sym_QMARK_DOT, anon_sym_async]), (ACTIONS 2932, 24, [anon_sym_LBRACE,
       anon_sym_LBRACK, anon_sym_COMMA, anon_sym_LPAREN, anon_sym_QMARK_QMARK,
       sym_equality_operator, anon_sym_LT_EQ, anon_sym_GT_EQ, anon_sym_CARET, anon_sym_LT_LT,
       anon_sym_GT_GT_GT, sym__additive_operator, anon_sym_STAR, anon_sym_PERCENT,
       anon_sym_TILDE_SLASH, anon_sym_is, anon_sym_DOT_DOT, anon_sym_QMARK_DOT_DOT,
       anon_sym_SEMI, anon_sym_EQ_GT, anon_sym_async_STAR, anon_sym_sync_STAR, anon_sym_AMP_AMP,
       anon_sym_PIPE_PIPE])])]"

lemma small_run_425: "small_run 1190 57202 ts_small_parse_table_425 1192 57322"
  by (simp add: small_simps ts_small_parse_table_425_def)

definition ts_small_parse_table_426 :: "small_group list" where
  "ts_small_parse_table_426 = [
     (57322, 8, [(ACTIONS 3, 1, [anon_sym_SLASH_SLASH]), (ACTIONS 5, 1, [anon_sym_SLASH_STAR]),
       (ACTIONS 7, 1, [anon_sym_SLASH_SLASH_SLASH]), (ACTIONS 9, 1, [sym__block_comment]),
       (ACTIONS 11, 1, [sym__documentation_block_comment]), (STATE 1192, 2, [sym_comment,
       sym_documentation_comment]), (ACTIONS 3048, 12, [anon_sym_QMARK, anon_sym_LT, anon_sym_GT,
       anon_sym_PIPE, anon_sym_AMP, anon_sym_GT_GT, anon_sym_SLASH, anon_sym_BANG, anon_sym_as,
       anon_sym_DOT, anon_sym_QMARK_DOT, anon_sym_async]), (ACTIONS 3046, 24, [anon_sym_LBRACE,
       anon_sym_LBRACK, anon_sym_COMMA, anon_sym_LPAREN, anon_sym_QMARK_QMARK,
       sym_equality_operator, anon_sym_LT_EQ, anon_sym_GT_EQ, anon_sym_CARET, anon_sym_LT_LT,
       anon_sym_GT_GT_GT, sym__additive_operator, anon_sym_STAR, anon_sym_PERCENT,
       anon_sym_TILDE_SLASH, anon_sym_is, anon_sym_DOT_DOT, anon_sym_QMARK_DOT_DOT,
       anon_sym_SEMI, anon_sym_EQ_GT, anon_sym_async_STAR, anon_sym_sync_STAR, anon_sym_AMP_AMP,
       anon_sym_PIPE_PIPE])]),
     (57382, 8, [(ACTIONS 3, 1, [anon_sym_SLASH_SLASH]), (ACTIONS 5, 1, [anon_sym_SLASH_STAR]),
       (ACTIONS 7, 1, [anon_sym_SLASH_SLASH_SLASH]), (ACTIONS 9, 1, [sym__block_comment]),
       (ACTIONS 11, 1, [sym__documentation_block_comment]), (STATE 1193, 2, [sym_comment,
       sym_documentation_comment]), (ACTIONS 3052, 12, [anon_sym_QMARK, anon_sym_LT, anon_sym_GT,
       anon_sym_PIPE, anon_sym_AMP, anon_sym_GT_GT, anon_sym_SLASH, anon_sym_BANG, anon_sym_as,
       anon_sym_DOT, anon_sym_QMARK_DOT, anon_sym_async]), (ACTIONS 3050, 24, [anon_sym_LBRACE,
       anon_sym_LBRACK, anon_sym_COMMA, anon_sym_LPAREN, anon_sym_QMARK_QMARK,
       sym_equality_operator, anon_sym_LT_EQ, anon_sym_GT_EQ, anon_sym_CARET, anon_sym_LT_LT,
       anon_sym_GT_GT_GT, sym__additive_operator, anon_sym_STAR, anon_sym_PERCENT,
       anon_sym_TILDE_SLASH, anon_sym_is, anon_sym_DOT_DOT, anon_sym_QMARK_DOT_DOT,
       anon_sym_SEMI, anon_sym_EQ_GT, anon_sym_async_STAR, anon_sym_sync_STAR, anon_sym_AMP_AMP,
       anon_sym_PIPE_PIPE])])]"

lemma small_run_426: "small_run 1192 57322 ts_small_parse_table_426 1194 57442"
  by (simp add: small_simps ts_small_parse_table_426_def)

definition ts_small_parse_table_427 :: "small_group list" where
  "ts_small_parse_table_427 = [
     (57442, 8, [(ACTIONS 3, 1, [anon_sym_SLASH_SLASH]), (ACTIONS 5, 1, [anon_sym_SLASH_STAR]),
       (ACTIONS 7, 1, [anon_sym_SLASH_SLASH_SLASH]), (ACTIONS 9, 1, [sym__block_comment]),
       (ACTIONS 11, 1, [sym__documentation_block_comment]), (STATE 1194, 2, [sym_comment,
       sym_documentation_comment]), (ACTIONS 3056, 12, [anon_sym_QMARK, anon_sym_LT, anon_sym_GT,
       anon_sym_PIPE, anon_sym_AMP, anon_sym_GT_GT, anon_sym_SLASH, anon_sym_BANG, anon_sym_as,
       anon_sym_DOT, anon_sym_QMARK_DOT, anon_sym_async]), (ACTIONS 3054, 24, [anon_sym_LBRACE,
       anon_sym_LBRACK, anon_sym_COMMA, anon_sym_LPAREN, anon_sym_QMARK_QMARK,
       sym_equality_operator, anon_sym_LT_EQ, anon_sym_GT_EQ, anon_sym_CARET, anon_sym_LT_LT,
       anon_sym_GT_GT_GT, sym__additive_operator, anon_sym_STAR, anon_sym_PERCENT,
       anon_sym_TILDE_SLASH, anon_sym_is, anon_sym_DOT_DOT, anon_sym_QMARK_DOT_DOT,
       anon_sym_SEMI, anon_sym_EQ_GT, anon_sym_async_STAR, anon_sym_sync_STAR, anon_sym_AMP_AMP,
       anon_sym_PIPE_PIPE])]),
     (57502, 8, [(ACTIONS 3, 1, [anon_sym_SLASH_SLASH]), (ACTIONS 5, 1, [anon_sym_SLASH_STAR]),
       (ACTIONS 7, 1, [anon_sym_SLASH_SLASH_SLASH]), (ACTIONS 9, 1, [sym__block_comment]),
       (ACTIONS 11, 1, [sym__documentation_block_comment]), (STATE 1195, 2, [sym_comment,
       sym_documentation_comment]), (ACTIONS 973, 12, [anon_sym_QMARK, anon_sym_LT, anon_sym_GT,
       anon_sym_PIPE, anon_sym_AMP, anon_sym_GT_GT, anon_sym_SLASH, anon_sym_BANG, anon_sym_as,
       anon_sym_DOT, anon_sym_QMARK_DOT, anon_sym_async]), (ACTIONS 975, 24, [anon_sym_LBRACE,
       anon_sym_LBRACK, anon_sym_COMMA, anon_sym_LPAREN, anon_sym_QMARK_QMARK,
       sym_equality_operator, anon_sym_LT_EQ, anon_sym_GT_EQ, anon_sym_CARET, anon_sym_LT_LT,
       anon_sym_GT_GT_GT, sym__additive_operator, anon_sym_STAR, anon_sym_PERCENT,
       anon_sym_TILDE_SLASH, anon_sym_is, anon_sym_DOT_DOT, anon_sym_QMARK_DOT_DOT,
       anon_sym_SEMI, anon_sym_EQ_GT, anon_sym_async_STAR, anon_sym_sync_STAR, anon_sym_AMP_AMP,
       anon_sym_PIPE_PIPE])])]"

lemma small_run_427: "small_run 1194 57442 ts_small_parse_table_427 1196 57562"
  by (simp add: small_simps ts_small_parse_table_427_def)

definition ts_small_parse_table_428 :: "small_group list" where
  "ts_small_parse_table_428 = [
     (57562, 8, [(ACTIONS 3, 1, [anon_sym_SLASH_SLASH]), (ACTIONS 5, 1, [anon_sym_SLASH_STAR]),
       (ACTIONS 7, 1, [anon_sym_SLASH_SLASH_SLASH]), (ACTIONS 9, 1, [sym__block_comment]),
       (ACTIONS 11, 1, [sym__documentation_block_comment]), (STATE 1196, 2, [sym_comment,
       sym_documentation_comment]), (ACTIONS 1663, 9, [anon_sym_QMARK, anon_sym_LT, anon_sym_GT,
       anon_sym_PIPE, anon_sym_AMP, anon_sym_GT_GT, sym__additive_operator, anon_sym_SLASH,
       anon_sym_BANG]), (ACTIONS 1661, 26, [anon_sym_RBRACE, anon_sym_LBRACK, anon_sym_COMMA,
       anon_sym_RBRACK, anon_sym_COLON, anon_sym_LPAREN, anon_sym_RPAREN, anon_sym_QMARK_QMARK,
       sym_equality_operator, anon_sym_LT_EQ, anon_sym_GT_EQ, anon_sym_CARET, anon_sym_LT_LT,
       anon_sym_GT_GT_GT, anon_sym_STAR, anon_sym_PERCENT, anon_sym_TILDE_SLASH,
       sym_increment_operator, anon_sym_is, anon_sym_as, anon_sym_DOT, anon_sym_QMARK_DOT,
       anon_sym_EQ_GT, anon_sym_when, anon_sym_AMP_AMP, anon_sym_PIPE_PIPE])]),
     (57621, 8, [(ACTIONS 3, 1, [anon_sym_SLASH_SLASH]), (ACTIONS 5, 1, [anon_sym_SLASH_STAR]),
       (ACTIONS 7, 1, [anon_sym_SLASH_SLASH_SLASH]), (ACTIONS 9, 1, [sym__block_comment]),
       (ACTIONS 11, 1, [sym__documentation_block_comment]), (STATE 1197, 2, [sym_comment,
       sym_documentation_comment]), (ACTIONS 1659, 9, [anon_sym_QMARK, anon_sym_LT, anon_sym_GT,
       anon_sym_PIPE, anon_sym_AMP, anon_sym_GT_GT, sym__additive_operator, anon_sym_SLASH,
       anon_sym_BANG]), (ACTIONS 1657, 26, [anon_sym_RBRACE, anon_sym_LBRACK, anon_sym_COMMA,
       anon_sym_RBRACK, anon_sym_COLON, anon_sym_LPAREN, anon_sym_RPAREN, anon_sym_QMARK_QMARK,
       sym_equality_operator, anon_sym_LT_EQ, anon_sym_GT_EQ, anon_sym_CARET, anon_sym_LT_LT,
       anon_sym_GT_GT_GT, anon_sym_STAR, anon_sym_PERCENT, anon_sym_TILDE_SLASH,
       sym_increment_operator, anon_sym_is, anon_sym_as, anon_sym_DOT, anon_sym_QMARK_DOT,
       anon_sym_EQ_GT, anon_sym_when, anon_sym_AMP_AMP, anon_sym_PIPE_PIPE])])]"

lemma small_run_428: "small_run 1196 57562 ts_small_parse_table_428 1198 57680"
  by (simp add: small_simps ts_small_parse_table_428_def)

definition ts_small_parse_table_429 :: "small_group list" where
  "ts_small_parse_table_429 = [
     (57680, 21, [(ACTIONS 3, 1, [anon_sym_SLASH_SLASH]), (ACTIONS 5, 1,
       [anon_sym_SLASH_STAR]), (ACTIONS 7, 1, [anon_sym_SLASH_SLASH_SLASH]), (ACTIONS 9, 1,
       [sym__block_comment]), (ACTIONS 11, 1, [sym__documentation_block_comment]), (ACTIONS 1067,
       1, [anon_sym_EQ]), (ACTIONS 1155, 1, [anon_sym_async]), (ACTIONS 2419, 1,
       [anon_sym_LBRACK]), (ACTIONS 2423, 1, [anon_sym_QMARK]), (ACTIONS 2427, 1,
       [anon_sym_DOT]), (ACTIONS 2429, 1, [anon_sym_QMARK_DOT]), (STATE 284, 1,
       [sym__assignment_operator]), (STATE 965, 1, [aux_sym_cascade_section_repeat2]), (STATE
       997, 1, [sym__assignable_selector]), (STATE 1141, 1, [sym__cascade_subsection]), (STATE
       1145, 1, [sym_index_selector]), (STATE 1963, 1, [sym__cascade_assignment_section]), (STATE
       1138, 2, [sym_unconditional_assignable_selector, sym_conditional_assignable_selector]),
       (STATE 1198, 2, [sym_comment, sym_documentation_comment]), (ACTIONS 1153, 8,
       [anon_sym_LBRACE, anon_sym_COMMA, anon_sym_DOT_DOT, anon_sym_QMARK_DOT_DOT, anon_sym_SEMI,
       anon_sym_EQ_GT, anon_sym_async_STAR, anon_sym_sync_STAR]), (ACTIONS 1069, 13,
       [anon_sym_PLUS_EQ, anon_sym_DASH_EQ, anon_sym_STAR_EQ, anon_sym_SLASH_EQ,
       anon_sym_PERCENT_EQ, anon_sym_TILDE_SLASH_EQ, anon_sym_LT_LT_EQ, anon_sym_GT_GT_EQ,
       anon_sym_GT_GT_GT_EQ, anon_sym_AMP_EQ, anon_sym_CARET_EQ, anon_sym_PIPE_EQ,
       anon_sym_QMARK_QMARK_EQ])]),
     (57765, 21, [(ACTIONS 3, 1, [anon_sym_SLASH_SLASH]), (ACTIONS 5, 1,
       [anon_sym_SLASH_STAR]), (ACTIONS 7, 1, [anon_sym_SLASH_SLASH_SLASH]), (ACTIONS 9, 1,
       [sym__block_comment]), (ACTIONS 11, 1, [sym__documentation_block_comment]), (ACTIONS 1067,
       1, [anon_sym_EQ]), (ACTIONS 1071, 1, [anon_sym_async]), (ACTIONS 2419, 1,
       [anon_sym_LBRACK]), (ACTIONS 2423, 1, [anon_sym_QMARK]), (ACTIONS 2427, 1,
       [anon_sym_DOT]), (ACTIONS 2429, 1, [anon_sym_QMARK_DOT]), (STATE 284, 1,
       [sym__assignment_operator]), (STATE 965, 1, [aux_sym_cascade_section_repeat2]), (STATE
       997, 1, [sym__assignable_selector]), (STATE 1141, 1, [sym__cascade_subsection]), (STATE
       1145, 1, [sym_index_selector]), (STATE 1965, 1, [sym__cascade_assignment_section]), (STATE
       1138, 2, [sym_unconditional_assignable_selector, sym_conditional_assignable_selector]),
       (STATE 1199, 2, [sym_comment, sym_documentation_comment]), (ACTIONS 1065, 8,
       [anon_sym_LBRACE, anon_sym_COMMA, anon_sym_DOT_DOT, anon_sym_QMARK_DOT_DOT, anon_sym_SEMI,
       anon_sym_EQ_GT, anon_sym_async_STAR, anon_sym_sync_STAR]), (ACTIONS 1069, 13,
       [anon_sym_PLUS_EQ, anon_sym_DASH_EQ, anon_sym_STAR_EQ, anon_sym_SLASH_EQ,
       anon_sym_PERCENT_EQ, anon_sym_TILDE_SLASH_EQ, anon_sym_LT_LT_EQ, anon_sym_GT_GT_EQ,
       anon_sym_GT_GT_GT_EQ, anon_sym_AMP_EQ, anon_sym_CARET_EQ, anon_sym_PIPE_EQ,
       anon_sym_QMARK_QMARK_EQ])])]"

lemma small_run_429: "small_run 1198 57680 ts_small_parse_table_429 1200 57850"
  by (simp add: small_simps ts_small_parse_table_429_def)

definition ts_small_parse_table_430 :: "small_group list" where
  "ts_small_parse_table_430 = [
     (57850, 11, [(ACTIONS 3, 1, [anon_sym_SLASH_SLASH]), (ACTIONS 5, 1,
       [anon_sym_SLASH_STAR]), (ACTIONS 7, 1, [anon_sym_SLASH_SLASH_SLASH]), (ACTIONS 9, 1,
       [sym__block_comment]), (ACTIONS 11, 1, [sym__documentation_block_comment]), (ACTIONS 982,
       1, [anon_sym_EQ]), (ACTIONS 3146, 2, [anon_sym_QMARK, anon_sym_BANG]), (STATE 1200, 2,
       [sym_comment, sym_documentation_comment]), (ACTIONS 3143, 7, [anon_sym_RBRACE,
       anon_sym_COMMA, anon_sym_RBRACK, anon_sym_RPAREN, anon_sym_as, anon_sym_AMP_AMP,
       anon_sym_PIPE_PIPE]), (ACTIONS 984, 8, [anon_sym_LT, anon_sym_GT, anon_sym_PIPE,
       anon_sym_AMP, anon_sym_GT_GT, anon_sym_SLASH, anon_sym_DOT, anon_sym_QMARK_DOT]), (ACTIONS
       980, 17, [anon_sym_LBRACK, anon_sym_COLON, anon_sym_LPAREN, anon_sym_QMARK_QMARK,
       sym_equality_operator, anon_sym_LT_EQ, anon_sym_GT_EQ, anon_sym_CARET, anon_sym_LT_LT,
       anon_sym_GT_GT_GT, sym__additive_operator, anon_sym_STAR, anon_sym_PERCENT,
       anon_sym_TILDE_SLASH, anon_sym_is, anon_sym_DOT_DOT, anon_sym_QMARK_DOT_DOT])]),
     (57915, 10, [(ACTIONS 3, 1, [anon_sym_SLASH_SLASH]), (ACTIONS 5, 1,
       [anon_sym_SLASH_STAR]), (ACTIONS 7, 1, [anon_sym_SLASH_SLASH_SLASH]), (ACTIONS 9, 1,
       [sym__block_comment]), (ACTIONS 11, 1, [sym__documentation_block_comment]), (ACTIONS 2302,
       1, [anon_sym_LPAREN]), (STATE 1287, 1, [sym_arguments]), (STATE 1201, 2, [sym_comment,
       sym_documentation_comment]), (ACTIONS 2706, 8, [anon_sym_QMARK, anon_sym_LT, anon_sym_GT,
       anon_sym_PIPE, anon_sym_AMP, anon_sym_GT_GT, anon_sym_SLASH, anon_sym_BANG]), (ACTIONS
       2704, 25, [anon_sym_RBRACE, anon_sym_LBRACK, anon_sym_COMMA, anon_sym_RBRACK,
       anon_sym_COLON, anon_sym_RPAREN, anon_sym_QMARK_QMARK, sym_equality_operator,
       anon_sym_LT_EQ, anon_sym_GT_EQ, anon_sym_CARET, anon_sym_LT_LT, anon_sym_GT_GT_GT,
       sym__additive_operator, anon_sym_STAR, anon_sym_PERCENT, anon_sym_TILDE_SLASH,
       anon_sym_is, anon_sym_as, anon_sym_DOT, anon_sym_QMARK_DOT, anon_sym_EQ_GT, anon_sym_when,
       anon_sym_AMP_AMP, anon_sym_PIPE_PIPE])])]"

lemma small_run_430: "small_run 1200 57850 ts_small_parse_table_430 1202 57978"
  by (simp add: small_simps ts_small_parse_table_430_def)

definition ts_small_parse_table_431 :: "small_group list" where
  "ts_small_parse_table_431 = [
     (57978, 10, [(ACTIONS 3, 1, [anon_sym_SLASH_SLASH]), (ACTIONS 5, 1,
       [anon_sym_SLASH_STAR]), (ACTIONS 7, 1, [anon_sym_SLASH_SLASH_SLASH]), (ACTIONS 9, 1,
       [sym__block_comment]), (ACTIONS 11, 1, [sym__documentation_block_comment]), (ACTIONS 2302,
       1, [anon_sym_LPAREN]), (STATE 1228, 1, [sym_arguments]), (STATE 1202, 2, [sym_comment,
       sym_documentation_comment]), (ACTIONS 1686, 8, [anon_sym_QMARK, anon_sym_LT, anon_sym_GT,
       anon_sym_PIPE, anon_sym_AMP, anon_sym_GT_GT, anon_sym_SLASH, anon_sym_BANG]), (ACTIONS
       1680, 25, [anon_sym_RBRACE, anon_sym_LBRACK, anon_sym_COMMA, anon_sym_RBRACK,
       anon_sym_COLON, anon_sym_RPAREN, anon_sym_QMARK_QMARK, sym_equality_operator,
       anon_sym_LT_EQ, anon_sym_GT_EQ, anon_sym_CARET, anon_sym_LT_LT, anon_sym_GT_GT_GT,
       sym__additive_operator, anon_sym_STAR, anon_sym_PERCENT, anon_sym_TILDE_SLASH,
       anon_sym_is, anon_sym_as, anon_sym_DOT, anon_sym_QMARK_DOT, anon_sym_EQ_GT, anon_sym_when,
       anon_sym_AMP_AMP, anon_sym_PIPE_PIPE])]),
     (58041, 12, [(ACTIONS 3, 1, [anon_sym_SLASH_SLASH]), (ACTIONS 5, 1,
       [anon_sym_SLASH_STAR]), (ACTIONS 7, 1, [anon_sym_SLASH_SLASH_SLASH]), (ACTIONS 9, 1,
       [sym__block_comment]), (ACTIONS 11, 1, [sym__documentation_block_comment]), (ACTIONS 2001,
       1, [anon_sym_LPAREN]), (STATE 955, 1, [sym_arguments]), (ACTIONS 3152, 2, [anon_sym_QMARK,
       anon_sym_BANG]), (STATE 1203, 2, [sym_comment, sym_documentation_comment]), (ACTIONS 3149,
       7, [anon_sym_RBRACE, anon_sym_COMMA, anon_sym_RBRACK, anon_sym_RPAREN, anon_sym_as,
       anon_sym_AMP_AMP, anon_sym_PIPE_PIPE]), (ACTIONS 2706, 8, [anon_sym_LT, anon_sym_GT,
       anon_sym_PIPE, anon_sym_AMP, anon_sym_GT_GT, anon_sym_SLASH, anon_sym_DOT,
       anon_sym_QMARK_DOT]), (ACTIONS 2704, 16, [anon_sym_LBRACK, anon_sym_COLON,
       anon_sym_QMARK_QMARK, sym_equality_operator, anon_sym_LT_EQ, anon_sym_GT_EQ,
       anon_sym_CARET, anon_sym_LT_LT, anon_sym_GT_GT_GT, sym__additive_operator, anon_sym_STAR,
       anon_sym_PERCENT, anon_sym_TILDE_SLASH, anon_sym_is, anon_sym_DOT_DOT,
       anon_sym_QMARK_DOT_DOT])])]"

lemma small_run_431: "small_run 1202 57978 ts_small_parse_table_431 1204 58108"
  by (simp add: small_simps ts_small_parse_table_431_def)

definition ts_small_parse_table_432 :: "small_group list" where
  "ts_small_parse_table_432 = [
     (58108, 20, [(ACTIONS 3, 1, [anon_sym_SLASH_SLASH]), (ACTIONS 5, 1,
       [anon_sym_SLASH_STAR]), (ACTIONS 7, 1, [anon_sym_SLASH_SLASH_SLASH]), (ACTIONS 9, 1,
       [sym__block_comment]), (ACTIONS 11, 1, [sym__documentation_block_comment]), (STATE 275, 1,
       [sym__assignment_operator]), (STATE 874, 1, [aux_sym_cascade_section_repeat1]), (STATE
       1088, 1, [sym_argument_part]), (STATE 1109, 1, [sym_arguments]), (STATE 1141, 1,
       [sym__cascade_subsection]), (STATE 1145, 1, [sym_index_selector]), (STATE 1365, 1,
       [aux_sym_cascade_section_repeat2]), (STATE 1593, 1, [sym__assignable_selector]), (STATE
       1965, 1, [sym__cascade_assignment_section]), (STATE 3052, 1, [sym_type_arguments]), (STATE
       1138, 2, [sym_unconditional_assignable_selector, sym_conditional_assignable_selector]),
       (STATE 1204, 2, [sym_comment, sym_documentation_comment]), (ACTIONS 1071, 4,
       [anon_sym_QMARK, anon_sym_LT, anon_sym_DOT, anon_sym_QMARK_DOT]), (ACTIONS 1065, 5,
       [anon_sym_LBRACK, anon_sym_LPAREN, anon_sym_BANG, anon_sym_DOT_DOT,
       anon_sym_QMARK_DOT_DOT]), (ACTIONS 1069, 14, [anon_sym_EQ, anon_sym_PLUS_EQ,
       anon_sym_DASH_EQ, anon_sym_STAR_EQ, anon_sym_SLASH_EQ, anon_sym_PERCENT_EQ,
       anon_sym_TILDE_SLASH_EQ, anon_sym_LT_LT_EQ, anon_sym_GT_GT_EQ, anon_sym_GT_GT_GT_EQ,
       anon_sym_AMP_EQ, anon_sym_CARET_EQ, anon_sym_PIPE_EQ, anon_sym_QMARK_QMARK_EQ])]),
     (58191, 9, [(ACTIONS 3, 1, [anon_sym_SLASH_SLASH]), (ACTIONS 5, 1, [anon_sym_SLASH_STAR]),
       (ACTIONS 7, 1, [anon_sym_SLASH_SLASH_SLASH]), (ACTIONS 9, 1, [sym__block_comment]),
       (ACTIONS 11, 1, [sym__documentation_block_comment]), (ACTIONS 1676, 1,
       [sym_increment_operator]), (STATE 1205, 2, [sym_comment, sym_documentation_comment]),
       (ACTIONS 1678, 9, [anon_sym_QMARK, anon_sym_LT, anon_sym_GT, anon_sym_PIPE, anon_sym_AMP,
       anon_sym_GT_GT, sym__additive_operator, anon_sym_SLASH, anon_sym_BANG]), (ACTIONS 1672,
       25, [anon_sym_RBRACE, anon_sym_LBRACK, anon_sym_COMMA, anon_sym_RBRACK, anon_sym_COLON,
       anon_sym_LPAREN, anon_sym_RPAREN, anon_sym_QMARK_QMARK, sym_equality_operator,
       anon_sym_LT_EQ, anon_sym_GT_EQ, anon_sym_CARET, anon_sym_LT_LT, anon_sym_GT_GT_GT,
       anon_sym_STAR, anon_sym_PERCENT, anon_sym_TILDE_SLASH, anon_sym_is, anon_sym_as,
       anon_sym_DOT, anon_sym_QMARK_DOT, anon_sym_EQ_GT, anon_sym_when, anon_sym_AMP_AMP,
       anon_sym_PIPE_PIPE])])]"

lemma small_run_432: "small_run 1204 58108 ts_small_parse_table_432 1206 58252"
  by (simp add: small_simps ts_small_parse_table_432_def)

definition ts_small_parse_table_433 :: "small_group list" where
  "ts_small_parse_table_433 = [
     (58252, 13, [(ACTIONS 3, 1, [anon_sym_SLASH_SLASH]), (ACTIONS 5, 1,
       [anon_sym_SLASH_STAR]), (ACTIONS 7, 1, [anon_sym_SLASH_SLASH_SLASH]), (ACTIONS 9, 1,
       [sym__block_comment]), (ACTIONS 11, 1, [sym__documentation_block_comment]), (ACTIONS 3157,
       1, [anon_sym_LPAREN]), (ACTIONS 3161, 1, [anon_sym_LT]), (ACTIONS 3163, 1,
       [anon_sym_DOT]), (STATE 1372, 1, [sym_arguments]), (STATE 3209, 1, [sym_type_arguments]),
       (ACTIONS 3159, 2, [anon_sym_QMARK, anon_sym_AT]), (STATE 1206, 2, [sym_comment,
       sym_documentation_comment]), (ACTIONS 3155, 28, [anon_sym_part, anon_sym_enum,
       anon_sym_final, anon_sym_inline, anon_sym_class, anon_sym_extension, sym_void_type,
       anon_sym_var, anon_sym_covariant, anon_sym_factory, anon_sym_Function, anon_sym_get,
       anon_sym_interface, anon_sym_base, anon_sym_abstract, anon_sym_sealed, anon_sym_operator,
       anon_sym_mixin, anon_sym_required, anon_sym_set, anon_sym_static, anon_sym_typedef,
       sym_const_builtin, anon_sym_late, anon_sym_external, anon_sym_this, anon_sym_super,
       sym_identifier])]),
     (58321, 14, [(ACTIONS 3, 1, [anon_sym_SLASH_SLASH]), (ACTIONS 5, 1,
       [anon_sym_SLASH_STAR]), (ACTIONS 7, 1, [anon_sym_SLASH_SLASH_SLASH]), (ACTIONS 9, 1,
       [sym__block_comment]), (ACTIONS 11, 1, [sym__documentation_block_comment]), (ACTIONS 1332,
       1, [anon_sym_BANG]), (ACTIONS 1993, 1, [anon_sym_DOT]), (ACTIONS 2787, 1,
       [anon_sym_QMARK]), (ACTIONS 2790, 1, [anon_sym_LT]), (STATE 1612, 1,
       [sym__type_dot_identifier]), (STATE 1207, 2, [sym_comment, sym_documentation_comment]),
       (ACTIONS 1322, 3, [anon_sym_LBRACK, anon_sym_LPAREN, anon_sym_QMARK_DOT]), (ACTIONS 1328,
       5, [anon_sym_GT, anon_sym_PIPE, anon_sym_AMP, anon_sym_GT_GT, anon_sym_SLASH]), (ACTIONS
       1330, 22, [anon_sym_RBRACE, anon_sym_COMMA, anon_sym_RBRACK, anon_sym_COLON,
       anon_sym_RPAREN, anon_sym_QMARK_QMARK, sym_equality_operator, anon_sym_LT_EQ,
       anon_sym_GT_EQ, anon_sym_CARET, anon_sym_LT_LT, anon_sym_GT_GT_GT, sym__additive_operator,
       anon_sym_STAR, anon_sym_PERCENT, anon_sym_TILDE_SLASH, anon_sym_is, anon_sym_as,
       anon_sym_EQ_GT, anon_sym_when, anon_sym_AMP_AMP, anon_sym_PIPE_PIPE])])]"

lemma small_run_433: "small_run 1206 58252 ts_small_parse_table_433 1208 58392"
  by (simp add: small_simps ts_small_parse_table_433_def)

definition ts_small_parse_table_434 :: "small_group list" where
  "ts_small_parse_table_434 = [
     (58392, 9, [(ACTIONS 3, 1, [anon_sym_SLASH_SLASH]), (ACTIONS 5, 1, [anon_sym_SLASH_STAR]),
       (ACTIONS 7, 1, [anon_sym_SLASH_SLASH_SLASH]), (ACTIONS 9, 1, [sym__block_comment]),
       (ACTIONS 11, 1, [sym__documentation_block_comment]), (ACTIONS 1701, 1,
       [sym_increment_operator]), (STATE 1208, 2, [sym_comment, sym_documentation_comment]),
       (ACTIONS 1686, 9, [anon_sym_QMARK, anon_sym_LT, anon_sym_GT, anon_sym_PIPE, anon_sym_AMP,
       anon_sym_GT_GT, sym__additive_operator, anon_sym_SLASH, anon_sym_BANG]), (ACTIONS 1680,
       25, [anon_sym_RBRACE, anon_sym_LBRACK, anon_sym_COMMA, anon_sym_RBRACK, anon_sym_COLON,
       anon_sym_LPAREN, anon_sym_RPAREN, anon_sym_QMARK_QMARK, sym_equality_operator,
       anon_sym_LT_EQ, anon_sym_GT_EQ, anon_sym_CARET, anon_sym_LT_LT, anon_sym_GT_GT_GT,
       anon_sym_STAR, anon_sym_PERCENT, anon_sym_TILDE_SLASH, anon_sym_is, anon_sym_as,
       anon_sym_DOT, anon_sym_QMARK_DOT, anon_sym_EQ_GT, anon_sym_when, anon_sym_AMP_AMP,
       anon_sym_PIPE_PIPE])]),
     (58453, 9, [(ACTIONS 3, 1, [anon_sym_SLASH_SLASH]), (ACTIONS 5, 1, [anon_sym_SLASH_STAR]),
       (ACTIONS 7, 1, [anon_sym_SLASH_SLASH_SLASH]), (ACTIONS 9, 1, [sym__block_comment]),
       (ACTIONS 11, 1, [sym__documentation_block_comment]), (ACTIONS 1684, 1,
       [sym_increment_operator]), (STATE 1209, 2, [sym_comment, sym_documentation_comment]),
       (ACTIONS 1686, 9, [anon_sym_QMARK, anon_sym_LT, anon_sym_GT, anon_sym_PIPE, anon_sym_AMP,
       anon_sym_GT_GT, sym__additive_operator, anon_sym_SLASH, anon_sym_BANG]), (ACTIONS 1680,
       25, [anon_sym_RBRACE, anon_sym_LBRACK, anon_sym_COMMA, anon_sym_RBRACK, anon_sym_COLON,
       anon_sym_LPAREN, anon_sym_RPAREN, anon_sym_QMARK_QMARK, sym_equality_operator,
       anon_sym_LT_EQ, anon_sym_GT_EQ, anon_sym_CARET, anon_sym_LT_LT, anon_sym_GT_GT_GT,
       anon_sym_STAR, anon_sym_PERCENT, anon_sym_TILDE_SLASH, anon_sym_is, anon_sym_as,
       anon_sym_DOT, anon_sym_QMARK_DOT, anon_sym_EQ_GT, anon_sym_when, anon_sym_AMP_AMP,
       anon_sym_PIPE_PIPE])])]"

lemma small_run_434: "small_run 1208 58392 ts_small_parse_table_434 1210 58514"
  by (simp add: small_simps ts_small_parse_table_434_def)

definition ts_small_parse_table_435 :: "small_group list" where
  "ts_small_parse_table_435 = [
     (58514, 8, [(ACTIONS 3, 1, [anon_sym_SLASH_SLASH]), (ACTIONS 5, 1, [anon_sym_SLASH_STAR]),
       (ACTIONS 7, 1, [anon_sym_SLASH_SLASH_SLASH]), (ACTIONS 9, 1, [sym__block_comment]),
       (ACTIONS 11, 1, [sym__documentation_block_comment]), (STATE 1210, 2, [sym_comment,
       sym_documentation_comment]), (ACTIONS 1670, 9, [anon_sym_QMARK, anon_sym_LT, anon_sym_GT,
       anon_sym_PIPE, anon_sym_AMP, anon_sym_GT_GT, sym__additive_operator, anon_sym_SLASH,
       anon_sym_BANG]), (ACTIONS 1668, 26, [anon_sym_RBRACE, anon_sym_LBRACK, anon_sym_COMMA,
       anon_sym_RBRACK, anon_sym_COLON, anon_sym_LPAREN, anon_sym_RPAREN, anon_sym_QMARK_QMARK,
       sym_equality_operator, anon_sym_LT_EQ, anon_sym_GT_EQ, anon_sym_CARET, anon_sym_LT_LT,
       anon_sym_GT_GT_GT, anon_sym_STAR, anon_sym_PERCENT, anon_sym_TILDE_SLASH,
       sym_increment_operator, anon_sym_is, anon_sym_as, anon_sym_DOT, anon_sym_QMARK_DOT,
       anon_sym_EQ_GT, anon_sym_when, anon_sym_AMP_AMP, anon_sym_PIPE_PIPE])]),
     (58573, 8, [(ACTIONS 3, 1, [anon_sym_SLASH_SLASH]), (ACTIONS 5, 1, [anon_sym_SLASH_STAR]),
       (ACTIONS 7, 1, [anon_sym_SLASH_SLASH_SLASH]), (ACTIONS 9, 1, [sym__block_comment]),
       (ACTIONS 11, 1, [sym__documentation_block_comment]), (STATE 1211, 2, [sym_comment,
       sym_documentation_comment]), (ACTIONS 1645, 9, [anon_sym_QMARK, anon_sym_LT, anon_sym_GT,
       anon_sym_PIPE, anon_sym_AMP, anon_sym_GT_GT, sym__additive_operator, anon_sym_SLASH,
       anon_sym_BANG]), (ACTIONS 1643, 26, [anon_sym_RBRACE, anon_sym_LBRACK, anon_sym_COMMA,
       anon_sym_RBRACK, anon_sym_COLON, anon_sym_LPAREN, anon_sym_RPAREN, anon_sym_QMARK_QMARK,
       sym_equality_operator, anon_sym_LT_EQ, anon_sym_GT_EQ, anon_sym_CARET, anon_sym_LT_LT,
       anon_sym_GT_GT_GT, anon_sym_STAR, anon_sym_PERCENT, anon_sym_TILDE_SLASH,
       sym_increment_operator, anon_sym_is, anon_sym_as, anon_sym_DOT, anon_sym_QMARK_DOT,
       anon_sym_EQ_GT, anon_sym_when, anon_sym_AMP_AMP, anon_sym_PIPE_PIPE])])]"

lemma small_run_435: "small_run 1210 58514 ts_small_parse_table_435 1212 58632"
  by (simp add: small_simps ts_small_parse_table_435_def)

definition ts_small_parse_table_436 :: "small_group list" where
  "ts_small_parse_table_436 = [
     (58632, 11, [(ACTIONS 3, 1, [anon_sym_SLASH_SLASH]), (ACTIONS 5, 1,
       [anon_sym_SLASH_STAR]), (ACTIONS 7, 1, [anon_sym_SLASH_SLASH_SLASH]), (ACTIONS 9, 1,
       [sym__block_comment]), (ACTIONS 11, 1, [sym__documentation_block_comment]), (ACTIONS 2659,
       1, [anon_sym_EQ]), (ACTIONS 3168, 2, [anon_sym_QMARK, anon_sym_BANG]), (STATE 1212, 2,
       [sym_comment, sym_documentation_comment]), (ACTIONS 3165, 7, [anon_sym_RBRACE,
       anon_sym_COMMA, anon_sym_RBRACK, anon_sym_RPAREN, anon_sym_as, anon_sym_AMP_AMP,
       anon_sym_PIPE_PIPE]), (ACTIONS 2661, 8, [anon_sym_LT, anon_sym_GT, anon_sym_PIPE,
       anon_sym_AMP, anon_sym_GT_GT, anon_sym_SLASH, anon_sym_DOT, anon_sym_QMARK_DOT]), (ACTIONS
       2657, 17, [anon_sym_LBRACK, anon_sym_COLON, anon_sym_LPAREN, anon_sym_QMARK_QMARK,
       sym_equality_operator, anon_sym_LT_EQ, anon_sym_GT_EQ, anon_sym_CARET, anon_sym_LT_LT,
       anon_sym_GT_GT_GT, sym__additive_operator, anon_sym_STAR, anon_sym_PERCENT,
       anon_sym_TILDE_SLASH, anon_sym_is, anon_sym_DOT_DOT, anon_sym_QMARK_DOT_DOT])]),
     (58697, 11, [(ACTIONS 3, 1, [anon_sym_SLASH_SLASH]), (ACTIONS 5, 1,
       [anon_sym_SLASH_STAR]), (ACTIONS 7, 1, [anon_sym_SLASH_SLASH_SLASH]), (ACTIONS 9, 1,
       [sym__block_comment]), (ACTIONS 11, 1, [sym__documentation_block_comment]), (ACTIONS 2674,
       1, [anon_sym_EQ]), (ACTIONS 3174, 2, [anon_sym_QMARK, anon_sym_BANG]), (STATE 1213, 2,
       [sym_comment, sym_documentation_comment]), (ACTIONS 3171, 7, [anon_sym_RBRACE,
       anon_sym_COMMA, anon_sym_RBRACK, anon_sym_RPAREN, anon_sym_as, anon_sym_AMP_AMP,
       anon_sym_PIPE_PIPE]), (ACTIONS 2676, 8, [anon_sym_LT, anon_sym_GT, anon_sym_PIPE,
       anon_sym_AMP, anon_sym_GT_GT, anon_sym_SLASH, anon_sym_DOT, anon_sym_QMARK_DOT]), (ACTIONS
       2672, 17, [anon_sym_LBRACK, anon_sym_COLON, anon_sym_LPAREN, anon_sym_QMARK_QMARK,
       sym_equality_operator, anon_sym_LT_EQ, anon_sym_GT_EQ, anon_sym_CARET, anon_sym_LT_LT,
       anon_sym_GT_GT_GT, sym__additive_operator, anon_sym_STAR, anon_sym_PERCENT,
       anon_sym_TILDE_SLASH, anon_sym_is, anon_sym_DOT_DOT, anon_sym_QMARK_DOT_DOT])])]"

lemma small_run_436: "small_run 1212 58632 ts_small_parse_table_436 1214 58762"
  by (simp add: small_simps ts_small_parse_table_436_def)

definition ts_small_parse_table_437 :: "small_group list" where
  "ts_small_parse_table_437 = [
     (58762, 11, [(ACTIONS 3, 1, [anon_sym_SLASH_SLASH]), (ACTIONS 5, 1,
       [anon_sym_SLASH_STAR]), (ACTIONS 7, 1, [anon_sym_SLASH_SLASH_SLASH]), (ACTIONS 9, 1,
       [sym__block_comment]), (ACTIONS 11, 1, [sym__documentation_block_comment]), (ACTIONS 2696,
       1, [anon_sym_EQ]), (ACTIONS 3180, 2, [anon_sym_QMARK, anon_sym_BANG]), (STATE 1214, 2,
       [sym_comment, sym_documentation_comment]), (ACTIONS 3177, 7, [anon_sym_RBRACE,
       anon_sym_COMMA, anon_sym_RBRACK, anon_sym_RPAREN, anon_sym_as, anon_sym_AMP_AMP,
       anon_sym_PIPE_PIPE]), (ACTIONS 2698, 8, [anon_sym_LT, anon_sym_GT, anon_sym_PIPE,
       anon_sym_AMP, anon_sym_GT_GT, anon_sym_SLASH, anon_sym_DOT, anon_sym_QMARK_DOT]), (ACTIONS
       2694, 17, [anon_sym_LBRACK, anon_sym_COLON, anon_sym_LPAREN, anon_sym_QMARK_QMARK,
       sym_equality_operator, anon_sym_LT_EQ, anon_sym_GT_EQ, anon_sym_CARET, anon_sym_LT_LT,
       anon_sym_GT_GT_GT, sym__additive_operator, anon_sym_STAR, anon_sym_PERCENT,
       anon_sym_TILDE_SLASH, anon_sym_is, anon_sym_DOT_DOT, anon_sym_QMARK_DOT_DOT])]),
     (58827, 20, [(ACTIONS 3, 1, [anon_sym_SLASH_SLASH]), (ACTIONS 5, 1,
       [anon_sym_SLASH_STAR]), (ACTIONS 7, 1, [anon_sym_SLASH_SLASH_SLASH]), (ACTIONS 9, 1,
       [sym__block_comment]), (ACTIONS 11, 1, [sym__documentation_block_comment]), (STATE 275, 1,
       [sym__assignment_operator]), (STATE 1088, 1, [sym_argument_part]), (STATE 1109, 1,
       [sym_arguments]), (STATE 1141, 1, [sym__cascade_subsection]), (STATE 1145, 1,
       [sym_index_selector]), (STATE 1204, 1, [aux_sym_cascade_section_repeat1]), (STATE 1355, 1,
       [aux_sym_cascade_section_repeat2]), (STATE 1593, 1, [sym__assignable_selector]), (STATE
       1970, 1, [sym__cascade_assignment_section]), (STATE 3052, 1, [sym_type_arguments]), (STATE
       1138, 2, [sym_unconditional_assignable_selector, sym_conditional_assignable_selector]),
       (STATE 1215, 2, [sym_comment, sym_documentation_comment]), (ACTIONS 1075, 4,
       [anon_sym_QMARK, anon_sym_LT, anon_sym_DOT, anon_sym_QMARK_DOT]), (ACTIONS 1073, 5,
       [anon_sym_LBRACK, anon_sym_LPAREN, anon_sym_BANG, anon_sym_DOT_DOT,
       anon_sym_QMARK_DOT_DOT]), (ACTIONS 1069, 14, [anon_sym_EQ, anon_sym_PLUS_EQ,
       anon_sym_DASH_EQ, anon_sym_STAR_EQ, anon_sym_SLASH_EQ, anon_sym_PERCENT_EQ,
       anon_sym_TILDE_SLASH_EQ, anon_sym_LT_LT_EQ, anon_sym_GT_GT_EQ, anon_sym_GT_GT_GT_EQ,
       anon_sym_AMP_EQ, anon_sym_CARET_EQ, anon_sym_PIPE_EQ, anon_sym_QMARK_QMARK_EQ])])]"

lemma small_run_437: "small_run 1214 58762 ts_small_parse_table_437 1216 58910"
  by (simp add: small_simps ts_small_parse_table_437_def)

definition ts_small_parse_table_438 :: "small_group list" where
  "ts_small_parse_table_438 = [
     (58910, 8, [(ACTIONS 3, 1, [anon_sym_SLASH_SLASH]), (ACTIONS 5, 1, [anon_sym_SLASH_STAR]),
       (ACTIONS 7, 1, [anon_sym_SLASH_SLASH_SLASH]), (ACTIONS 9, 1, [sym__block_comment]),
       (ACTIONS 11, 1, [sym__documentation_block_comment]), (STATE 1216, 2, [sym_comment,
       sym_documentation_comment]), (ACTIONS 1697, 9, [anon_sym_QMARK, anon_sym_LT, anon_sym_GT,
       anon_sym_PIPE, anon_sym_AMP, anon_sym_GT_GT, sym__additive_operator, anon_sym_SLASH,
       anon_sym_BANG]), (ACTIONS 1695, 26, [anon_sym_RBRACE, anon_sym_LBRACK, anon_sym_COMMA,
       anon_sym_RBRACK, anon_sym_COLON, anon_sym_LPAREN, anon_sym_RPAREN, anon_sym_QMARK_QMARK,
       sym_equality_operator, anon_sym_LT_EQ, anon_sym_GT_EQ, anon_sym_CARET, anon_sym_LT_LT,
       anon_sym_GT_GT_GT, anon_sym_STAR, anon_sym_PERCENT, anon_sym_TILDE_SLASH,
       sym_increment_operator, anon_sym_is, anon_sym_as, anon_sym_DOT, anon_sym_QMARK_DOT,
       anon_sym_EQ_GT, anon_sym_when, anon_sym_AMP_AMP, anon_sym_PIPE_PIPE])]),
     (58969, 8, [(ACTIONS 3, 1, [anon_sym_SLASH_SLASH]), (ACTIONS 5, 1, [anon_sym_SLASH_STAR]),
       (ACTIONS 7, 1, [anon_sym_SLASH_SLASH_SLASH]), (ACTIONS 9, 1, [sym__block_comment]),
       (ACTIONS 11, 1, [sym__documentation_block_comment]), (STATE 1217, 2, [sym_comment,
       sym_documentation_comment]), (ACTIONS 3012, 14, [anon_sym_POUND, sym_hex_integer_literal,
       anon_sym_DQUOTE_DQUOTE_DQUOTE, anon_sym_SQUOTE_SQUOTE_SQUOTE,
       anon_sym_r_DQUOTE_DQUOTE_DQUOTE, anon_sym_r_SQUOTE_SQUOTE_SQUOTE, anon_sym_LBRACE,
       anon_sym_LBRACK, anon_sym_LPAREN, anon_sym_LT, sym_increment_operator, anon_sym_BANG,
       anon_sym_TILDE, anon_sym_QMARK_DOT]), (ACTIONS 3014, 21, [sym_decimal_integer_literal,
       sym_decimal_floating_point_literal, anon_sym_true, anon_sym_false, anon_sym_DQUOTE,
       anon_sym_SQUOTE, anon_sym_r_DQUOTE, anon_sym_r_SQUOTE, anon_sym_null, anon_sym_QMARK,
       sym_minus_operator, anon_sym_await, anon_sym_DOT, anon_sym_switch, sym_void_type,
       anon_sym_Function, anon_sym_new, sym_const_builtin, anon_sym_this, anon_sym_super,
       sym_identifier])])]"

lemma small_run_438: "small_run 1216 58910 ts_small_parse_table_438 1218 59028"
  by (simp add: small_simps ts_small_parse_table_438_def)

definition ts_small_parse_table_439 :: "small_group list" where
  "ts_small_parse_table_439 = [
     (59028, 8, [(ACTIONS 3, 1, [anon_sym_SLASH_SLASH]), (ACTIONS 5, 1, [anon_sym_SLASH_STAR]),
       (ACTIONS 7, 1, [anon_sym_SLASH_SLASH_SLASH]), (ACTIONS 9, 1, [sym__block_comment]),
       (ACTIONS 11, 1, [sym__documentation_block_comment]), (STATE 1218, 2, [sym_comment,
       sym_documentation_comment]), (ACTIONS 973, 8, [anon_sym_QMARK, anon_sym_LT, anon_sym_GT,
       anon_sym_PIPE, anon_sym_AMP, anon_sym_GT_GT, anon_sym_SLASH, anon_sym_BANG]), (ACTIONS
       975, 26, [anon_sym_RBRACE, anon_sym_LBRACK, anon_sym_COMMA, anon_sym_RBRACK,
       anon_sym_COLON, anon_sym_LPAREN, anon_sym_RPAREN, anon_sym_QMARK_QMARK,
       sym_equality_operator, anon_sym_LT_EQ, anon_sym_GT_EQ, anon_sym_CARET, anon_sym_LT_LT,
       anon_sym_GT_GT_GT, sym__additive_operator, anon_sym_STAR, anon_sym_PERCENT,
       anon_sym_TILDE_SLASH, anon_sym_is, anon_sym_as, anon_sym_DOT, anon_sym_QMARK_DOT,
       anon_sym_EQ_GT, anon_sym_when, anon_sym_AMP_AMP, anon_sym_PIPE_PIPE])]),
     (59086, 8, [(ACTIONS 3, 1, [anon_sym_SLASH_SLASH]), (ACTIONS 5, 1, [anon_sym_SLASH_STAR]),
       (ACTIONS 7, 1, [anon_sym_SLASH_SLASH_SLASH]), (ACTIONS 9, 1, [sym__block_comment]),
       (ACTIONS 11, 1, [sym__documentation_block_comment]), (STATE 1219, 2, [sym_comment,
       sym_documentation_comment]), (ACTIONS 3034, 8, [anon_sym_QMARK, anon_sym_LT, anon_sym_GT,
       anon_sym_PIPE, anon_sym_AMP, anon_sym_GT_GT, anon_sym_SLASH, anon_sym_BANG]), (ACTIONS
       3032, 26, [anon_sym_RBRACE, anon_sym_LBRACK, anon_sym_COMMA, anon_sym_RBRACK,
       anon_sym_COLON, anon_sym_LPAREN, anon_sym_RPAREN, anon_sym_QMARK_QMARK,
       sym_equality_operator, anon_sym_LT_EQ, anon_sym_GT_EQ, anon_sym_CARET, anon_sym_LT_LT,
       anon_sym_GT_GT_GT, sym__additive_operator, anon_sym_STAR, anon_sym_PERCENT,
       anon_sym_TILDE_SLASH, anon_sym_is, anon_sym_as, anon_sym_DOT, anon_sym_QMARK_DOT,
       anon_sym_EQ_GT, anon_sym_when, anon_sym_AMP_AMP, anon_sym_PIPE_PIPE])]),
     (59144, 8, [(ACTIONS 3, 1, [anon_sym_SLASH_SLASH]), (ACTIONS 5, 1, [anon_sym_SLASH_STAR]),
       (ACTIONS 7, 1, [anon_sym_SLASH_SLASH_SLASH]), (ACTIONS 9, 1, [sym__block_comment]),
       (ACTIONS 11, 1, [sym__documentation_block_comment]), (STATE 1220, 2, [sym_comment,
       sym_documentation_comment]), (ACTIONS 3084, 8, [anon_sym_QMARK, anon_sym_LT, anon_sym_GT,
       anon_sym_PIPE, anon_sym_AMP, anon_sym_GT_GT, anon_sym_SLASH, anon_sym_BANG]), (ACTIONS
       3082, 26, [anon_sym_RBRACE, anon_sym_LBRACK, anon_sym_COMMA, anon_sym_RBRACK,
       anon_sym_COLON, anon_sym_LPAREN, anon_sym_RPAREN, anon_sym_QMARK_QMARK,
       sym_equality_operator, anon_sym_LT_EQ, anon_sym_GT_EQ, anon_sym_CARET, anon_sym_LT_LT,
       anon_sym_GT_GT_GT, sym__additive_operator, anon_sym_STAR, anon_sym_PERCENT,
       anon_sym_TILDE_SLASH, anon_sym_is, anon_sym_as, anon_sym_DOT, anon_sym_QMARK_DOT,
       anon_sym_EQ_GT, anon_sym_when, anon_sym_AMP_AMP, anon_sym_PIPE_PIPE])])]"

lemma small_run_439: "small_run 1218 59028 ts_small_parse_table_439 1221 59202"
  by (simp add: small_simps ts_small_parse_table_439_def)

definition ts_small_parse_table_440 :: "small_group list" where
  "ts_small_parse_table_440 = [
     (59202, 8, [(ACTIONS 3, 1, [anon_sym_SLASH_SLASH]), (ACTIONS 5, 1, [anon_sym_SLASH_STAR]),
       (ACTIONS 7, 1, [anon_sym_SLASH_SLASH_SLASH]), (ACTIONS 9, 1, [sym__block_comment]),
       (ACTIONS 11, 1, [sym__documentation_block_comment]), (STATE 1221, 2, [sym_comment,
       sym_documentation_comment]), (ACTIONS 2942, 8, [anon_sym_QMARK, anon_sym_LT, anon_sym_GT,
       anon_sym_PIPE, anon_sym_AMP, anon_sym_GT_GT, anon_sym_SLASH, anon_sym_BANG]), (ACTIONS
       2940, 26, [anon_sym_RBRACE, anon_sym_LBRACK, anon_sym_COMMA, anon_sym_RBRACK,
       anon_sym_COLON, anon_sym_LPAREN, anon_sym_RPAREN, anon_sym_QMARK_QMARK,
       sym_equality_operator, anon_sym_LT_EQ, anon_sym_GT_EQ, anon_sym_CARET, anon_sym_LT_LT,
       anon_sym_GT_GT_GT, sym__additive_operator, anon_sym_STAR, anon_sym_PERCENT,
       anon_sym_TILDE_SLASH, anon_sym_is, anon_sym_as, anon_sym_DOT, anon_sym_QMARK_DOT,
       anon_sym_EQ_GT, anon_sym_when, anon_sym_AMP_AMP, anon_sym_PIPE_PIPE])]),
     (59260, 8, [(ACTIONS 3, 1, [anon_sym_SLASH_SLASH]), (ACTIONS 5, 1, [anon_sym_SLASH_STAR]),
       (ACTIONS 7, 1, [anon_sym_SLASH_SLASH_SLASH]), (ACTIONS 9, 1, [sym__block_comment]),
       (ACTIONS 11, 1, [sym__documentation_block_comment]), (STATE 1222, 2, [sym_comment,
       sym_documentation_comment]), (ACTIONS 2824, 8, [anon_sym_QMARK, anon_sym_LT, anon_sym_GT,
       anon_sym_PIPE, anon_sym_AMP, anon_sym_GT_GT, anon_sym_SLASH, anon_sym_BANG]), (ACTIONS
       2822, 26, [anon_sym_RBRACE, anon_sym_LBRACK, anon_sym_COMMA, anon_sym_RBRACK,
       anon_sym_COLON, anon_sym_LPAREN, anon_sym_RPAREN, anon_sym_QMARK_QMARK,
       sym_equality_operator, anon_sym_LT_EQ, anon_sym_GT_EQ, anon_sym_CARET, anon_sym_LT_LT,
       anon_sym_GT_GT_GT, sym__additive_operator, anon_sym_STAR, anon_sym_PERCENT,
       anon_sym_TILDE_SLASH, anon_sym_is, anon_sym_as, anon_sym_DOT, anon_sym_QMARK_DOT,
       anon_sym_EQ_GT, anon_sym_when, anon_sym_AMP_AMP, anon_sym_PIPE_PIPE])]),
     (59318, 8, [(ACTIONS 3, 1, [anon_sym_SLASH_SLASH]), (ACTIONS 5, 1, [anon_sym_SLASH_STAR]),
       (ACTIONS 7, 1, [anon_sym_SLASH_SLASH_SLASH]), (ACTIONS 9, 1, [sym__block_comment]),
       (ACTIONS 11, 1, [sym__documentation_block_comment]), (STATE 1223, 2, [sym_comment,
       sym_documentation_comment]), (ACTIONS 3026, 8, [anon_sym_QMARK, anon_sym_LT, anon_sym_GT,
       anon_sym_PIPE, anon_sym_AMP, anon_sym_GT_GT, anon_sym_SLASH, anon_sym_BANG]), (ACTIONS
       3024, 26, [anon_sym_RBRACE, anon_sym_LBRACK, anon_sym_COMMA, anon_sym_RBRACK,
       anon_sym_COLON, anon_sym_LPAREN, anon_sym_RPAREN, anon_sym_QMARK_QMARK,
       sym_equality_operator, anon_sym_LT_EQ, anon_sym_GT_EQ, anon_sym_CARET, anon_sym_LT_LT,
       anon_sym_GT_GT_GT, sym__additive_operator, anon_sym_STAR, anon_sym_PERCENT,
       anon_sym_TILDE_SLASH, anon_sym_is, anon_sym_as, anon_sym_DOT, anon_sym_QMARK_DOT,
       anon_sym_EQ_GT, anon_sym_when, anon_sym_AMP_AMP, anon_sym_PIPE_PIPE])])]"

lemma small_run_440: "small_run 1221 59202 ts_small_parse_table_440 1224 59376"
  by (simp add: small_simps ts_small_parse_table_440_def)

definition ts_small_parse_table_441 :: "small_group list" where
  "ts_small_parse_table_441 = [
     (59376, 8, [(ACTIONS 3, 1, [anon_sym_SLASH_SLASH]), (ACTIONS 5, 1, [anon_sym_SLASH_STAR]),
       (ACTIONS 7, 1, [anon_sym_SLASH_SLASH_SLASH]), (ACTIONS 9, 1, [sym__block_comment]),
       (ACTIONS 11, 1, [sym__documentation_block_comment]), (STATE 1224, 2, [sym_comment,
       sym_documentation_comment]), (ACTIONS 2834, 8, [anon_sym_QMARK, anon_sym_LT, anon_sym_GT,
       anon_sym_PIPE, anon_sym_AMP, anon_sym_GT_GT, anon_sym_SLASH, anon_sym_BANG]), (ACTIONS
       2832, 26, [anon_sym_RBRACE, anon_sym_LBRACK, anon_sym_COMMA, anon_sym_RBRACK,
       anon_sym_COLON, anon_sym_LPAREN, anon_sym_RPAREN, anon_sym_QMARK_QMARK,
       sym_equality_operator, anon_sym_LT_EQ, anon_sym_GT_EQ, anon_sym_CARET, anon_sym_LT_LT,
       anon_sym_GT_GT_GT, sym__additive_operator, anon_sym_STAR, anon_sym_PERCENT,
       anon_sym_TILDE_SLASH, anon_sym_is, anon_sym_as, anon_sym_DOT, anon_sym_QMARK_DOT,
       anon_sym_EQ_GT, anon_sym_when, anon_sym_AMP_AMP, anon_sym_PIPE_PIPE])]),
     (59434, 8, [(ACTIONS 3, 1, [anon_sym_SLASH_SLASH]), (ACTIONS 5, 1, [anon_sym_SLASH_STAR]),
       (ACTIONS 7, 1, [anon_sym_SLASH_SLASH_SLASH]), (ACTIONS 9, 1, [sym__block_comment]),
       (ACTIONS 11, 1, [sym__documentation_block_comment]), (STATE 1225, 2, [sym_comment,
       sym_documentation_comment]), (ACTIONS 2864, 8, [anon_sym_QMARK, anon_sym_LT, anon_sym_GT,
       anon_sym_PIPE, anon_sym_AMP, anon_sym_GT_GT, anon_sym_SLASH, anon_sym_BANG]), (ACTIONS
       2862, 26, [anon_sym_RBRACE, anon_sym_LBRACK, anon_sym_COMMA, anon_sym_RBRACK,
       anon_sym_COLON, anon_sym_LPAREN, anon_sym_RPAREN, anon_sym_QMARK_QMARK,
       sym_equality_operator, anon_sym_LT_EQ, anon_sym_GT_EQ, anon_sym_CARET, anon_sym_LT_LT,
       anon_sym_GT_GT_GT, sym__additive_operator, anon_sym_STAR, anon_sym_PERCENT,
       anon_sym_TILDE_SLASH, anon_sym_is, anon_sym_as, anon_sym_DOT, anon_sym_QMARK_DOT,
       anon_sym_EQ_GT, anon_sym_when, anon_sym_AMP_AMP, anon_sym_PIPE_PIPE])]),
     (59492, 8, [(ACTIONS 3, 1, [anon_sym_SLASH_SLASH]), (ACTIONS 5, 1, [anon_sym_SLASH_STAR]),
       (ACTIONS 7, 1, [anon_sym_SLASH_SLASH_SLASH]), (ACTIONS 9, 1, [sym__block_comment]),
       (ACTIONS 11, 1, [sym__documentation_block_comment]), (STATE 1226, 2, [sym_comment,
       sym_documentation_comment]), (ACTIONS 2922, 8, [anon_sym_QMARK, anon_sym_LT, anon_sym_GT,
       anon_sym_PIPE, anon_sym_AMP, anon_sym_GT_GT, anon_sym_SLASH, anon_sym_BANG]), (ACTIONS
       2920, 26, [anon_sym_RBRACE, anon_sym_LBRACK, anon_sym_COMMA, anon_sym_RBRACK,
       anon_sym_COLON, anon_sym_LPAREN, anon_sym_RPAREN, anon_sym_QMARK_QMARK,
       sym_equality_operator, anon_sym_LT_EQ, anon_sym_GT_EQ, anon_sym_CARET, anon_sym_LT_LT,
       anon_sym_GT_GT_GT, sym__additive_operator, anon_sym_STAR, anon_sym_PERCENT,
       anon_sym_TILDE_SLASH, anon_sym_is, anon_sym_as, anon_sym_DOT, anon_sym_QMARK_DOT,
       anon_sym_EQ_GT, anon_sym_when, anon_sym_AMP_AMP, anon_sym_PIPE_PIPE])])]"

lemma small_run_441: "small_run 1224 59376 ts_small_parse_table_441 1227 59550"
  by (simp add: small_simps ts_small_parse_table_441_def)

definition ts_small_parse_table_442 :: "small_group list" where
  "ts_small_parse_table_442 = [
     (59550, 8, [(ACTIONS 3, 1, [anon_sym_SLASH_SLASH]), (ACTIONS 5, 1, [anon_sym_SLASH_STAR]),
       (ACTIONS 7, 1, [anon_sym_SLASH_SLASH_SLASH]), (ACTIONS 9, 1, [sym__block_comment]),
       (ACTIONS 11, 1, [sym__documentation_block_comment]), (STATE 1227, 2, [sym_comment,
       sym_documentation_comment]), (ACTIONS 1697, 8, [anon_sym_QMARK, anon_sym_LT, anon_sym_GT,
       anon_sym_PIPE, anon_sym_AMP, anon_sym_GT_GT, anon_sym_SLASH, anon_sym_BANG]), (ACTIONS
       1695, 26, [anon_sym_RBRACE, anon_sym_LBRACK, anon_sym_COMMA, anon_sym_RBRACK,
       anon_sym_COLON, anon_sym_LPAREN, anon_sym_RPAREN, anon_sym_QMARK_QMARK,
       sym_equality_operator, anon_sym_LT_EQ, anon_sym_GT_EQ, anon_sym_CARET, anon_sym_LT_LT,
       anon_sym_GT_GT_GT, sym__additive_operator, anon_sym_STAR, anon_sym_PERCENT,
       anon_sym_TILDE_SLASH, anon_sym_is, anon_sym_as, anon_sym_DOT, anon_sym_QMARK_DOT,
       anon_sym_EQ_GT, anon_sym_when, anon_sym_AMP_AMP, anon_sym_PIPE_PIPE])]),
     (59608, 8, [(ACTIONS 3, 1, [anon_sym_SLASH_SLASH]), (ACTIONS 5, 1, [anon_sym_SLASH_STAR]),
       (ACTIONS 7, 1, [anon_sym_SLASH_SLASH_SLASH]), (ACTIONS 9, 1, [sym__block_comment]),
       (ACTIONS 11, 1, [sym__documentation_block_comment]), (STATE 1228, 2, [sym_comment,
       sym_documentation_comment]), (ACTIONS 1733, 8, [anon_sym_QMARK, anon_sym_LT, anon_sym_GT,
       anon_sym_PIPE, anon_sym_AMP, anon_sym_GT_GT, anon_sym_SLASH, anon_sym_BANG]), (ACTIONS
       1731, 26, [anon_sym_RBRACE, anon_sym_LBRACK, anon_sym_COMMA, anon_sym_RBRACK,
       anon_sym_COLON, anon_sym_LPAREN, anon_sym_RPAREN, anon_sym_QMARK_QMARK,
       sym_equality_operator, anon_sym_LT_EQ, anon_sym_GT_EQ, anon_sym_CARET, anon_sym_LT_LT,
       anon_sym_GT_GT_GT, sym__additive_operator, anon_sym_STAR, anon_sym_PERCENT,
       anon_sym_TILDE_SLASH, anon_sym_is, anon_sym_as, anon_sym_DOT, anon_sym_QMARK_DOT,
       anon_sym_EQ_GT, anon_sym_when, anon_sym_AMP_AMP, anon_sym_PIPE_PIPE])]),
     (59666, 8, [(ACTIONS 3, 1, [anon_sym_SLASH_SLASH]), (ACTIONS 5, 1, [anon_sym_SLASH_STAR]),
       (ACTIONS 7, 1, [anon_sym_SLASH_SLASH_SLASH]), (ACTIONS 9, 1, [sym__block_comment]),
       (ACTIONS 11, 1, [sym__documentation_block_comment]), (STATE 1229, 2, [sym_comment,
       sym_documentation_comment]), (ACTIONS 1663, 8, [anon_sym_QMARK, anon_sym_LT, anon_sym_GT,
       anon_sym_PIPE, anon_sym_AMP, anon_sym_GT_GT, anon_sym_SLASH, anon_sym_BANG]), (ACTIONS
       1661, 26, [anon_sym_RBRACE, anon_sym_LBRACK, anon_sym_COMMA, anon_sym_RBRACK,
       anon_sym_COLON, anon_sym_LPAREN, anon_sym_RPAREN, anon_sym_QMARK_QMARK,
       sym_equality_operator, anon_sym_LT_EQ, anon_sym_GT_EQ, anon_sym_CARET, anon_sym_LT_LT,
       anon_sym_GT_GT_GT, sym__additive_operator, anon_sym_STAR, anon_sym_PERCENT,
       anon_sym_TILDE_SLASH, anon_sym_is, anon_sym_as, anon_sym_DOT, anon_sym_QMARK_DOT,
       anon_sym_EQ_GT, anon_sym_when, anon_sym_AMP_AMP, anon_sym_PIPE_PIPE])])]"

lemma small_run_442: "small_run 1227 59550 ts_small_parse_table_442 1230 59724"
  by (simp add: small_simps ts_small_parse_table_442_def)

definition ts_small_parse_table_443 :: "small_group list" where
  "ts_small_parse_table_443 = [
     (59724, 8, [(ACTIONS 3, 1, [anon_sym_SLASH_SLASH]), (ACTIONS 5, 1, [anon_sym_SLASH_STAR]),
       (ACTIONS 7, 1, [anon_sym_SLASH_SLASH_SLASH]), (ACTIONS 9, 1, [sym__block_comment]),
       (ACTIONS 11, 1, [sym__documentation_block_comment]), (STATE 1230, 2, [sym_comment,
       sym_documentation_comment]), (ACTIONS 1659, 8, [anon_sym_QMARK, anon_sym_LT, anon_sym_GT,
       anon_sym_PIPE, anon_sym_AMP, anon_sym_GT_GT, anon_sym_SLASH, anon_sym_BANG]), (ACTIONS
       1657, 26, [anon_sym_RBRACE, anon_sym_LBRACK, anon_sym_COMMA, anon_sym_RBRACK,
       anon_sym_COLON, anon_sym_LPAREN, anon_sym_RPAREN, anon_sym_QMARK_QMARK,
       sym_equality_operator, anon_sym_LT_EQ, anon_sym_GT_EQ, anon_sym_CARET, anon_sym_LT_LT,
       anon_sym_GT_GT_GT, sym__additive_operator, anon_sym_STAR, anon_sym_PERCENT,
       anon_sym_TILDE_SLASH, anon_sym_is, anon_sym_as, anon_sym_DOT, anon_sym_QMARK_DOT,
       anon_sym_EQ_GT, anon_sym_when, anon_sym_AMP_AMP, anon_sym_PIPE_PIPE])]),
     (59782, 8, [(ACTIONS 3, 1, [anon_sym_SLASH_SLASH]), (ACTIONS 5, 1, [anon_sym_SLASH_STAR]),
       (ACTIONS 7, 1, [anon_sym_SLASH_SLASH_SLASH]), (ACTIONS 9, 1, [sym__block_comment]),
       (ACTIONS 11, 1, [sym__documentation_block_comment]), (STATE 1231, 2, [sym_comment,
       sym_documentation_comment]), (ACTIONS 1670, 8, [anon_sym_QMARK, anon_sym_LT, anon_sym_GT,
       anon_sym_PIPE, anon_sym_AMP, anon_sym_GT_GT, anon_sym_SLASH, anon_sym_BANG]), (ACTIONS
       1668, 26, [anon_sym_RBRACE, anon_sym_LBRACK, anon_sym_COMMA, anon_sym_RBRACK,
       anon_sym_COLON, anon_sym_LPAREN, anon_sym_RPAREN, anon_sym_QMARK_QMARK,
       sym_equality_operator, anon_sym_LT_EQ, anon_sym_GT_EQ, anon_sym_CARET, anon_sym_LT_LT,
       anon_sym_GT_GT_GT, sym__additive_operator, anon_sym_STAR, anon_sym_PERCENT,
       anon_sym_TILDE_SLASH, anon_sym_is, anon_sym_as, anon_sym_DOT, anon_sym_QMARK_DOT,
       anon_sym_EQ_GT, anon_sym_when, anon_sym_AMP_AMP, anon_sym_PIPE_PIPE])]),
     (59840, 8, [(ACTIONS 3, 1, [anon_sym_SLASH_SLASH]), (ACTIONS 5, 1, [anon_sym_SLASH_STAR]),
       (ACTIONS 7, 1, [anon_sym_SLASH_SLASH_SLASH]), (ACTIONS 9, 1, [sym__block_comment]),
       (ACTIONS 11, 1, [sym__documentation_block_comment]), (STATE 1232, 2, [sym_comment,
       sym_documentation_comment]), (ACTIONS 1645, 8, [anon_sym_QMARK, anon_sym_LT, anon_sym_GT,
       anon_sym_PIPE, anon_sym_AMP, anon_sym_GT_GT, anon_sym_SLASH, anon_sym_BANG]), (ACTIONS
       1643, 26, [anon_sym_RBRACE, anon_sym_LBRACK, anon_sym_COMMA, anon_sym_RBRACK,
       anon_sym_COLON, anon_sym_LPAREN, anon_sym_RPAREN, anon_sym_QMARK_QMARK,
       sym_equality_operator, anon_sym_LT_EQ, anon_sym_GT_EQ, anon_sym_CARET, anon_sym_LT_LT,
       anon_sym_GT_GT_GT, sym__additive_operator, anon_sym_STAR, anon_sym_PERCENT,
       anon_sym_TILDE_SLASH, anon_sym_is, anon_sym_as, anon_sym_DOT, anon_sym_QMARK_DOT,
       anon_sym_EQ_GT, anon_sym_when, anon_sym_AMP_AMP, anon_sym_PIPE_PIPE])])]"

lemma small_run_443: "small_run 1230 59724 ts_small_parse_table_443 1233 59898"
  by (simp add: small_simps ts_small_parse_table_443_def)

definition ts_small_parse_table_444 :: "small_group list" where
  "ts_small_parse_table_444 = [
     (59898, 8, [(ACTIONS 3, 1, [anon_sym_SLASH_SLASH]), (ACTIONS 5, 1, [anon_sym_SLASH_STAR]),
       (ACTIONS 7, 1, [anon_sym_SLASH_SLASH_SLASH]), (ACTIONS 9, 1, [sym__block_comment]),
       (ACTIONS 11, 1, [sym__documentation_block_comment]), (STATE 1233, 2, [sym_comment,
       sym_documentation_comment]), (ACTIONS 955, 13, [anon_sym_POUND, sym_hex_integer_literal,
       anon_sym_DQUOTE_DQUOTE_DQUOTE, anon_sym_SQUOTE_SQUOTE_SQUOTE,
       anon_sym_r_DQUOTE_DQUOTE_DQUOTE, anon_sym_r_SQUOTE_SQUOTE_SQUOTE, anon_sym_LBRACE,
       anon_sym_LBRACK, anon_sym_LPAREN, anon_sym_LT, sym_increment_operator, anon_sym_BANG,
       anon_sym_TILDE]), (ACTIONS 950, 21, [sym_decimal_integer_literal,
       sym_decimal_floating_point_literal, anon_sym_true, anon_sym_false, anon_sym_DQUOTE,
       anon_sym_SQUOTE, anon_sym_r_DQUOTE, anon_sym_r_SQUOTE, anon_sym_null, anon_sym_throw,
       sym_minus_operator, anon_sym_await, anon_sym_switch, anon_sym_default, anon_sym_case,
       sym_rethrow_builtin, anon_sym_new, sym_const_builtin, anon_sym_this, anon_sym_super,
       sym_identifier])]),
     (59956, 8, [(ACTIONS 3, 1, [anon_sym_SLASH_SLASH]), (ACTIONS 5, 1, [anon_sym_SLASH_STAR]),
       (ACTIONS 7, 1, [anon_sym_SLASH_SLASH_SLASH]), (ACTIONS 9, 1, [sym__block_comment]),
       (ACTIONS 11, 1, [sym__documentation_block_comment]), (STATE 1234, 2, [sym_comment,
       sym_documentation_comment]), (ACTIONS 2743, 8, [anon_sym_QMARK, anon_sym_LT, anon_sym_GT,
       anon_sym_PIPE, anon_sym_AMP, anon_sym_GT_GT, anon_sym_SLASH, anon_sym_BANG]), (ACTIONS
       2741, 26, [anon_sym_RBRACE, anon_sym_LBRACK, anon_sym_COMMA, anon_sym_RBRACK,
       anon_sym_COLON, anon_sym_LPAREN, anon_sym_RPAREN, anon_sym_QMARK_QMARK,
       sym_equality_operator, anon_sym_LT_EQ, anon_sym_GT_EQ, anon_sym_CARET, anon_sym_LT_LT,
       anon_sym_GT_GT_GT, sym__additive_operator, anon_sym_STAR, anon_sym_PERCENT,
       anon_sym_TILDE_SLASH, anon_sym_is, anon_sym_as, anon_sym_DOT, anon_sym_QMARK_DOT,
       anon_sym_EQ_GT, anon_sym_when, anon_sym_AMP_AMP, anon_sym_PIPE_PIPE])])]"

lemma small_run_444: "small_run 1233 59898 ts_small_parse_table_444 1235 60014"
  by (simp add: small_simps ts_small_parse_table_444_def)

definition ts_small_parse_table_445 :: "small_group list" where
  "ts_small_parse_table_445 = [
     (60014, 12, [(ACTIONS 3, 1, [anon_sym_SLASH_SLASH]), (ACTIONS 5, 1,
       [anon_sym_SLASH_STAR]), (ACTIONS 7, 1, [anon_sym_SLASH_SLASH_SLASH]), (ACTIONS 9, 1,
       [sym__block_comment]), (ACTIONS 11, 1, [sym__documentation_block_comment]), (ACTIONS 2504,
       1, [anon_sym_SLASH]), (STATE 430, 1, [sym_multiplicative_operator]), (STATE 1416, 1,
       [sym__multiplicative_operator]), (ACTIONS 2501, 3, [anon_sym_STAR, anon_sym_PERCENT,
       anon_sym_TILDE_SLASH]), (STATE 1235, 3, [sym_comment, sym_documentation_comment,
       aux_sym_multiplicative_expression_repeat1]), (ACTIONS 2499, 8, [anon_sym_QMARK,
       anon_sym_LT, anon_sym_GT, anon_sym_PIPE, anon_sym_AMP, anon_sym_GT_GT, anon_sym_as,
       anon_sym_async]), (ACTIONS 2497, 19, [anon_sym_LBRACE, anon_sym_COMMA,
       anon_sym_QMARK_QMARK, sym_equality_operator, anon_sym_LT_EQ, anon_sym_GT_EQ,
       anon_sym_CARET, anon_sym_LT_LT, anon_sym_GT_GT_GT, sym__additive_operator, anon_sym_is,
       anon_sym_DOT_DOT, anon_sym_QMARK_DOT_DOT, anon_sym_SEMI, anon_sym_EQ_GT,
       anon_sym_async_STAR, anon_sym_sync_STAR, anon_sym_AMP_AMP, anon_sym_PIPE_PIPE])]),
     (60080, 8, [(ACTIONS 3, 1, [anon_sym_SLASH_SLASH]), (ACTIONS 5, 1, [anon_sym_SLASH_STAR]),
       (ACTIONS 7, 1, [anon_sym_SLASH_SLASH_SLASH]), (ACTIONS 9, 1, [sym__block_comment]),
       (ACTIONS 11, 1, [sym__documentation_block_comment]), (STATE 1236, 2, [sym_comment,
       sym_documentation_comment]), (ACTIONS 2954, 8, [anon_sym_QMARK, anon_sym_LT, anon_sym_GT,
       anon_sym_PIPE, anon_sym_AMP, anon_sym_GT_GT, anon_sym_SLASH, anon_sym_BANG]), (ACTIONS
       2952, 26, [anon_sym_RBRACE, anon_sym_LBRACK, anon_sym_COMMA, anon_sym_RBRACK,
       anon_sym_COLON, anon_sym_LPAREN, anon_sym_RPAREN, anon_sym_QMARK_QMARK,
       sym_equality_operator, anon_sym_LT_EQ, anon_sym_GT_EQ, anon_sym_CARET, anon_sym_LT_LT,
       anon_sym_GT_GT_GT, sym__additive_operator, anon_sym_STAR, anon_sym_PERCENT,
       anon_sym_TILDE_SLASH, anon_sym_is, anon_sym_as, anon_sym_DOT, anon_sym_QMARK_DOT,
       anon_sym_EQ_GT, anon_sym_when, anon_sym_AMP_AMP, anon_sym_PIPE_PIPE])])]"

lemma small_run_445: "small_run 1235 60014 ts_small_parse_table_445 1237 60138"
  by (simp add: small_simps ts_small_parse_table_445_def)

definition ts_small_parse_table_446 :: "small_group list" where
  "ts_small_parse_table_446 = [
     (60138, 8, [(ACTIONS 3, 1, [anon_sym_SLASH_SLASH]), (ACTIONS 5, 1, [anon_sym_SLASH_STAR]),
       (ACTIONS 7, 1, [anon_sym_SLASH_SLASH_SLASH]), (ACTIONS 9, 1, [sym__block_comment]),
       (ACTIONS 11, 1, [sym__documentation_block_comment]), (STATE 1237, 2, [sym_comment,
       sym_documentation_comment]), (ACTIONS 2698, 8, [anon_sym_QMARK, anon_sym_LT, anon_sym_GT,
       anon_sym_PIPE, anon_sym_AMP, anon_sym_GT_GT, anon_sym_SLASH, anon_sym_BANG]), (ACTIONS
       2694, 26, [anon_sym_RBRACE, anon_sym_LBRACK, anon_sym_COMMA, anon_sym_RBRACK,
       anon_sym_COLON, anon_sym_LPAREN, anon_sym_RPAREN, anon_sym_QMARK_QMARK,
       sym_equality_operator, anon_sym_LT_EQ, anon_sym_GT_EQ, anon_sym_CARET, anon_sym_LT_LT,
       anon_sym_GT_GT_GT, sym__additive_operator, anon_sym_STAR, anon_sym_PERCENT,
       anon_sym_TILDE_SLASH, anon_sym_is, anon_sym_as, anon_sym_DOT, anon_sym_QMARK_DOT,
       anon_sym_EQ_GT, anon_sym_when, anon_sym_AMP_AMP, anon_sym_PIPE_PIPE])]),
     (60196, 10, [(ACTIONS 3, 1, [anon_sym_SLASH_SLASH]), (ACTIONS 5, 1,
       [anon_sym_SLASH_STAR]), (ACTIONS 7, 1, [anon_sym_SLASH_SLASH_SLASH]), (ACTIONS 9, 1,
       [sym__block_comment]), (ACTIONS 11, 1, [sym__documentation_block_comment]), (ACTIONS 3186,
       2, [anon_sym_QMARK, anon_sym_BANG]), (STATE 1238, 2, [sym_comment,
       sym_documentation_comment]), (ACTIONS 3183, 7, [anon_sym_RBRACE, anon_sym_COMMA,
       anon_sym_RBRACK, anon_sym_RPAREN, anon_sym_as, anon_sym_AMP_AMP, anon_sym_PIPE_PIPE]),
       (ACTIONS 3026, 8, [anon_sym_LT, anon_sym_GT, anon_sym_PIPE, anon_sym_AMP, anon_sym_GT_GT,
       anon_sym_SLASH, anon_sym_DOT, anon_sym_QMARK_DOT]), (ACTIONS 3024, 17, [anon_sym_LBRACK,
       anon_sym_COLON, anon_sym_LPAREN, anon_sym_QMARK_QMARK, sym_equality_operator,
       anon_sym_LT_EQ, anon_sym_GT_EQ, anon_sym_CARET, anon_sym_LT_LT, anon_sym_GT_GT_GT,
       sym__additive_operator, anon_sym_STAR, anon_sym_PERCENT, anon_sym_TILDE_SLASH,
       anon_sym_is, anon_sym_DOT_DOT, anon_sym_QMARK_DOT_DOT])])]"

lemma small_run_446: "small_run 1237 60138 ts_small_parse_table_446 1239 60258"
  by (simp add: small_simps ts_small_parse_table_446_def)

definition ts_small_parse_table_447 :: "small_group list" where
  "ts_small_parse_table_447 = [
     (60258, 8, [(ACTIONS 3, 1, [anon_sym_SLASH_SLASH]), (ACTIONS 5, 1, [anon_sym_SLASH_STAR]),
       (ACTIONS 7, 1, [anon_sym_SLASH_SLASH_SLASH]), (ACTIONS 9, 1, [sym__block_comment]),
       (ACTIONS 11, 1, [sym__documentation_block_comment]), (STATE 1239, 2, [sym_comment,
       sym_documentation_comment]), (ACTIONS 984, 8, [anon_sym_QMARK, anon_sym_LT, anon_sym_GT,
       anon_sym_PIPE, anon_sym_AMP, anon_sym_GT_GT, anon_sym_SLASH, anon_sym_BANG]), (ACTIONS
       980, 26, [anon_sym_RBRACE, anon_sym_LBRACK, anon_sym_COMMA, anon_sym_RBRACK,
       anon_sym_COLON, anon_sym_LPAREN, anon_sym_RPAREN, anon_sym_QMARK_QMARK,
       sym_equality_operator, anon_sym_LT_EQ, anon_sym_GT_EQ, anon_sym_CARET, anon_sym_LT_LT,
       anon_sym_GT_GT_GT, sym__additive_operator, anon_sym_STAR, anon_sym_PERCENT,
       anon_sym_TILDE_SLASH, anon_sym_is, anon_sym_as, anon_sym_DOT, anon_sym_QMARK_DOT,
       anon_sym_EQ_GT, anon_sym_when, anon_sym_AMP_AMP, anon_sym_PIPE_PIPE])]),
     (60316, 8, [(ACTIONS 3, 1, [anon_sym_SLASH_SLASH]), (ACTIONS 5, 1, [anon_sym_SLASH_STAR]),
       (ACTIONS 7, 1, [anon_sym_SLASH_SLASH_SLASH]), (ACTIONS 9, 1, [sym__block_comment]),
       (ACTIONS 11, 1, [sym__documentation_block_comment]), (STATE 1240, 2, [sym_comment,
       sym_documentation_comment]), (ACTIONS 1881, 8, [anon_sym_QMARK, anon_sym_LT, anon_sym_GT,
       anon_sym_PIPE, anon_sym_AMP, anon_sym_GT_GT, anon_sym_SLASH, anon_sym_BANG]), (ACTIONS
       1879, 26, [anon_sym_RBRACE, anon_sym_LBRACK, anon_sym_COMMA, anon_sym_RBRACK,
       anon_sym_COLON, anon_sym_LPAREN, anon_sym_RPAREN, anon_sym_QMARK_QMARK,
       sym_equality_operator, anon_sym_LT_EQ, anon_sym_GT_EQ, anon_sym_CARET, anon_sym_LT_LT,
       anon_sym_GT_GT_GT, sym__additive_operator, anon_sym_STAR, anon_sym_PERCENT,
       anon_sym_TILDE_SLASH, anon_sym_is, anon_sym_as, anon_sym_DOT, anon_sym_QMARK_DOT,
       anon_sym_EQ_GT, anon_sym_when, anon_sym_AMP_AMP, anon_sym_PIPE_PIPE])])]"

lemma small_run_447: "small_run 1239 60258 ts_small_parse_table_447 1241 60374"
  by (simp add: small_simps ts_small_parse_table_447_def)

definition ts_small_parse_table_448 :: "small_group list" where
  "ts_small_parse_table_448 = [
     (60374, 10, [(ACTIONS 3, 1, [anon_sym_SLASH_SLASH]), (ACTIONS 5, 1,
       [anon_sym_SLASH_STAR]), (ACTIONS 7, 1, [anon_sym_SLASH_SLASH_SLASH]), (ACTIONS 9, 1,
       [sym__block_comment]), (ACTIONS 11, 1, [sym__documentation_block_comment]), (ACTIONS 3192,
       2, [anon_sym_QMARK, anon_sym_BANG]), (STATE 1241, 2, [sym_comment,
       sym_documentation_comment]), (ACTIONS 3189, 7, [anon_sym_RBRACE, anon_sym_COMMA,
       anon_sym_RBRACK, anon_sym_RPAREN, anon_sym_as, anon_sym_AMP_AMP, anon_sym_PIPE_PIPE]),
       (ACTIONS 2824, 8, [anon_sym_LT, anon_sym_GT, anon_sym_PIPE, anon_sym_AMP, anon_sym_GT_GT,
       anon_sym_SLASH, anon_sym_DOT, anon_sym_QMARK_DOT]), (ACTIONS 2822, 17, [anon_sym_LBRACK,
       anon_sym_COLON, anon_sym_LPAREN, anon_sym_QMARK_QMARK, sym_equality_operator,
       anon_sym_LT_EQ, anon_sym_GT_EQ, anon_sym_CARET, anon_sym_LT_LT, anon_sym_GT_GT_GT,
       sym__additive_operator, anon_sym_STAR, anon_sym_PERCENT, anon_sym_TILDE_SLASH,
       anon_sym_is, anon_sym_DOT_DOT, anon_sym_QMARK_DOT_DOT])]),
     (60436, 8, [(ACTIONS 3, 1, [anon_sym_SLASH_SLASH]), (ACTIONS 5, 1, [anon_sym_SLASH_STAR]),
       (ACTIONS 7, 1, [anon_sym_SLASH_SLASH_SLASH]), (ACTIONS 9, 1, [sym__block_comment]),
       (ACTIONS 11, 1, [sym__documentation_block_comment]), (STATE 1242, 2, [sym_comment,
       sym_documentation_comment]), (ACTIONS 2718, 8, [anon_sym_QMARK, anon_sym_LT, anon_sym_GT,
       anon_sym_PIPE, anon_sym_AMP, anon_sym_GT_GT, anon_sym_SLASH, anon_sym_BANG]), (ACTIONS
       2716, 26, [anon_sym_RBRACE, anon_sym_LBRACK, anon_sym_COMMA, anon_sym_RBRACK,
       anon_sym_COLON, anon_sym_LPAREN, anon_sym_RPAREN, anon_sym_QMARK_QMARK,
       sym_equality_operator, anon_sym_LT_EQ, anon_sym_GT_EQ, anon_sym_CARET, anon_sym_LT_LT,
       anon_sym_GT_GT_GT, sym__additive_operator, anon_sym_STAR, anon_sym_PERCENT,
       anon_sym_TILDE_SLASH, anon_sym_is, anon_sym_as, anon_sym_DOT, anon_sym_QMARK_DOT,
       anon_sym_EQ_GT, anon_sym_when, anon_sym_AMP_AMP, anon_sym_PIPE_PIPE])])]"

lemma small_run_448: "small_run 1241 60374 ts_small_parse_table_448 1243 60494"
  by (simp add: small_simps ts_small_parse_table_448_def)

definition ts_small_parse_table_449 :: "small_group list" where
  "ts_small_parse_table_449 = [
     (60494, 8, [(ACTIONS 3, 1, [anon_sym_SLASH_SLASH]), (ACTIONS 5, 1, [anon_sym_SLASH_STAR]),
       (ACTIONS 7, 1, [anon_sym_SLASH_SLASH_SLASH]), (ACTIONS 9, 1, [sym__block_comment]),
       (ACTIONS 11, 1, [sym__documentation_block_comment]), (STATE 1243, 2, [sym_comment,
       sym_documentation_comment]), (ACTIONS 1688, 8, [anon_sym_QMARK, anon_sym_LT, anon_sym_GT,
       anon_sym_PIPE, anon_sym_AMP, anon_sym_GT_GT, anon_sym_SLASH, anon_sym_BANG]), (ACTIONS
       1690, 26, [anon_sym_RBRACE, anon_sym_LBRACK, anon_sym_COMMA, anon_sym_RBRACK,
       anon_sym_COLON, anon_sym_LPAREN, anon_sym_RPAREN, anon_sym_QMARK_QMARK,
       sym_equality_operator, anon_sym_LT_EQ, anon_sym_GT_EQ, anon_sym_CARET, anon_sym_LT_LT,
       anon_sym_GT_GT_GT, sym__additive_operator, anon_sym_STAR, anon_sym_PERCENT,
       anon_sym_TILDE_SLASH, anon_sym_is, anon_sym_as, anon_sym_DOT, anon_sym_QMARK_DOT,
       anon_sym_EQ_GT, anon_sym_when, anon_sym_AMP_AMP, anon_sym_PIPE_PIPE])]),
     (60552, 8, [(ACTIONS 3, 1, [anon_sym_SLASH_SLASH]), (ACTIONS 5, 1, [anon_sym_SLASH_STAR]),
       (ACTIONS 7, 1, [anon_sym_SLASH_SLASH_SLASH]), (ACTIONS 9, 1, [sym__block_comment]),
       (ACTIONS 11, 1, [sym__documentation_block_comment]), (STATE 1244, 2, [sym_comment,
       sym_documentation_comment]), (ACTIONS 1041, 8, [anon_sym_QMARK, anon_sym_LT, anon_sym_GT,
       anon_sym_PIPE, anon_sym_AMP, anon_sym_GT_GT, anon_sym_SLASH, anon_sym_BANG]), (ACTIONS
       1039, 26, [anon_sym_RBRACE, anon_sym_LBRACK, anon_sym_COMMA, anon_sym_RBRACK,
       anon_sym_COLON, anon_sym_LPAREN, anon_sym_RPAREN, anon_sym_QMARK_QMARK,
       sym_equality_operator, anon_sym_LT_EQ, anon_sym_GT_EQ, anon_sym_CARET, anon_sym_LT_LT,
       anon_sym_GT_GT_GT, sym__additive_operator, anon_sym_STAR, anon_sym_PERCENT,
       anon_sym_TILDE_SLASH, anon_sym_is, anon_sym_as, anon_sym_DOT, anon_sym_QMARK_DOT,
       anon_sym_EQ_GT, anon_sym_when, anon_sym_AMP_AMP, anon_sym_PIPE_PIPE])])]"

lemma small_run_449: "small_run 1243 60494 ts_small_parse_table_449 1245 60610"
  by (simp add: small_simps ts_small_parse_table_449_def)

definition ts_small_parse_table_450 :: "small_group list" where
  "ts_small_parse_table_450 = [
     (60610, 10, [(ACTIONS 3, 1, [anon_sym_SLASH_SLASH]), (ACTIONS 5, 1,
       [anon_sym_SLASH_STAR]), (ACTIONS 7, 1, [anon_sym_SLASH_SLASH_SLASH]), (ACTIONS 9, 1,
       [sym__block_comment]), (ACTIONS 11, 1, [sym__documentation_block_comment]), (ACTIONS 3198,
       2, [anon_sym_QMARK, anon_sym_BANG]), (STATE 1245, 2, [sym_comment,
       sym_documentation_comment]), (ACTIONS 3195, 7, [anon_sym_RBRACE, anon_sym_COMMA,
       anon_sym_RBRACK, anon_sym_RPAREN, anon_sym_as, anon_sym_AMP_AMP, anon_sym_PIPE_PIPE]),
       (ACTIONS 3068, 8, [anon_sym_LT, anon_sym_GT, anon_sym_PIPE, anon_sym_AMP, anon_sym_GT_GT,
       anon_sym_SLASH, anon_sym_DOT, anon_sym_QMARK_DOT]), (ACTIONS 3066, 17, [anon_sym_LBRACK,
       anon_sym_COLON, anon_sym_LPAREN, anon_sym_QMARK_QMARK, sym_equality_operator,
       anon_sym_LT_EQ, anon_sym_GT_EQ, anon_sym_CARET, anon_sym_LT_LT, anon_sym_GT_GT_GT,
       sym__additive_operator, anon_sym_STAR, anon_sym_PERCENT, anon_sym_TILDE_SLASH,
       anon_sym_is, anon_sym_DOT_DOT, anon_sym_QMARK_DOT_DOT])]),
     (60672, 8, [(ACTIONS 3, 1, [anon_sym_SLASH_SLASH]), (ACTIONS 5, 1, [anon_sym_SLASH_STAR]),
       (ACTIONS 7, 1, [anon_sym_SLASH_SLASH_SLASH]), (ACTIONS 9, 1, [sym__block_comment]),
       (ACTIONS 11, 1, [sym__documentation_block_comment]), (STATE 1246, 2, [sym_comment,
       sym_documentation_comment]), (ACTIONS 2676, 8, [anon_sym_QMARK, anon_sym_LT, anon_sym_GT,
       anon_sym_PIPE, anon_sym_AMP, anon_sym_GT_GT, anon_sym_SLASH, anon_sym_BANG]), (ACTIONS
       2672, 26, [anon_sym_RBRACE, anon_sym_LBRACK, anon_sym_COMMA, anon_sym_RBRACK,
       anon_sym_COLON, anon_sym_LPAREN, anon_sym_RPAREN, anon_sym_QMARK_QMARK,
       sym_equality_operator, anon_sym_LT_EQ, anon_sym_GT_EQ, anon_sym_CARET, anon_sym_LT_LT,
       anon_sym_GT_GT_GT, sym__additive_operator, anon_sym_STAR, anon_sym_PERCENT,
       anon_sym_TILDE_SLASH, anon_sym_is, anon_sym_as, anon_sym_DOT, anon_sym_QMARK_DOT,
       anon_sym_EQ_GT, anon_sym_when, anon_sym_AMP_AMP, anon_sym_PIPE_PIPE])])]"

lemma small_run_450: "small_run 1245 60610 ts_small_parse_table_450 1247 60730"
  by (simp add: small_simps ts_small_parse_table_450_def)

definition ts_small_parse_table_451 :: "small_group list" where
  "ts_small_parse_table_451 = [
     (60730, 8, [(ACTIONS 3, 1, [anon_sym_SLASH_SLASH]), (ACTIONS 5, 1, [anon_sym_SLASH_STAR]),
       (ACTIONS 7, 1, [anon_sym_SLASH_SLASH_SLASH]), (ACTIONS 9, 1, [sym__block_comment]),
       (ACTIONS 11, 1, [sym__documentation_block_comment]), (STATE 1247, 2, [sym_comment,
       sym_documentation_comment]), (ACTIONS 2661, 8, [anon_sym_QMARK, anon_sym_LT, anon_sym_GT,
       anon_sym_PIPE, anon_sym_AMP, anon_sym_GT_GT, anon_sym_SLASH, anon_sym_BANG]), (ACTIONS
       2657, 26, [anon_sym_RBRACE, anon_sym_LBRACK, anon_sym_COMMA, anon_sym_RBRACK,
       anon_sym_COLON, anon_sym_LPAREN, anon_sym_RPAREN, anon_sym_QMARK_QMARK,
       sym_equality_operator, anon_sym_LT_EQ, anon_sym_GT_EQ, anon_sym_CARET, anon_sym_LT_LT,
       anon_sym_GT_GT_GT, sym__additive_operator, anon_sym_STAR, anon_sym_PERCENT,
       anon_sym_TILDE_SLASH, anon_sym_is, anon_sym_as, anon_sym_DOT, anon_sym_QMARK_DOT,
       anon_sym_EQ_GT, anon_sym_when, anon_sym_AMP_AMP, anon_sym_PIPE_PIPE])]),
     (60788, 8, [(ACTIONS 3, 1, [anon_sym_SLASH_SLASH]), (ACTIONS 5, 1, [anon_sym_SLASH_STAR]),
       (ACTIONS 7, 1, [anon_sym_SLASH_SLASH_SLASH]), (ACTIONS 9, 1, [sym__block_comment]),
       (ACTIONS 11, 1, [sym__documentation_block_comment]), (STATE 1248, 2, [sym_comment,
       sym_documentation_comment]), (ACTIONS 3010, 8, [anon_sym_QMARK, anon_sym_LT, anon_sym_GT,
       anon_sym_PIPE, anon_sym_AMP, anon_sym_GT_GT, anon_sym_SLASH, anon_sym_BANG]), (ACTIONS
       3008, 26, [anon_sym_RBRACE, anon_sym_LBRACK, anon_sym_COMMA, anon_sym_RBRACK,
       anon_sym_COLON, anon_sym_LPAREN, anon_sym_RPAREN, anon_sym_QMARK_QMARK,
       sym_equality_operator, anon_sym_LT_EQ, anon_sym_GT_EQ, anon_sym_CARET, anon_sym_LT_LT,
       anon_sym_GT_GT_GT, sym__additive_operator, anon_sym_STAR, anon_sym_PERCENT,
       anon_sym_TILDE_SLASH, anon_sym_is, anon_sym_as, anon_sym_DOT, anon_sym_QMARK_DOT,
       anon_sym_EQ_GT, anon_sym_when, anon_sym_AMP_AMP, anon_sym_PIPE_PIPE])])]"

lemma small_run_451: "small_run 1247 60730 ts_small_parse_table_451 1249 60846"
  by (simp add: small_simps ts_small_parse_table_451_def)

definition ts_small_parse_table_452 :: "small_group list" where
  "ts_small_parse_table_452 = [
     (60846, 10, [(ACTIONS 3, 1, [anon_sym_SLASH_SLASH]), (ACTIONS 5, 1,
       [anon_sym_SLASH_STAR]), (ACTIONS 7, 1, [anon_sym_SLASH_SLASH_SLASH]), (ACTIONS 9, 1,
       [sym__block_comment]), (ACTIONS 11, 1, [sym__documentation_block_comment]), (ACTIONS 1486,
       2, [anon_sym_QMARK, anon_sym_BANG]), (STATE 1249, 2, [sym_comment,
       sym_documentation_comment]), (ACTIONS 1489, 7, [anon_sym_RBRACE, anon_sym_COMMA,
       anon_sym_RBRACK, anon_sym_RPAREN, anon_sym_as, anon_sym_AMP_AMP, anon_sym_PIPE_PIPE]),
       (ACTIONS 1332, 8, [anon_sym_LT, anon_sym_GT, anon_sym_PIPE, anon_sym_AMP, anon_sym_GT_GT,
       anon_sym_SLASH, anon_sym_DOT, anon_sym_QMARK_DOT]), (ACTIONS 1322, 17, [anon_sym_LBRACK,
       anon_sym_COLON, anon_sym_LPAREN, anon_sym_QMARK_QMARK, sym_equality_operator,
       anon_sym_LT_EQ, anon_sym_GT_EQ, anon_sym_CARET, anon_sym_LT_LT, anon_sym_GT_GT_GT,
       sym__additive_operator, anon_sym_STAR, anon_sym_PERCENT, anon_sym_TILDE_SLASH,
       anon_sym_is, anon_sym_DOT_DOT, anon_sym_QMARK_DOT_DOT])]),
     (60908, 8, [(ACTIONS 3, 1, [anon_sym_SLASH_SLASH]), (ACTIONS 5, 1, [anon_sym_SLASH_STAR]),
       (ACTIONS 7, 1, [anon_sym_SLASH_SLASH_SLASH]), (ACTIONS 9, 1, [sym__block_comment]),
       (ACTIONS 11, 1, [sym__documentation_block_comment]), (STATE 1250, 2, [sym_comment,
       sym_documentation_comment]), (ACTIONS 3030, 8, [anon_sym_QMARK, anon_sym_LT, anon_sym_GT,
       anon_sym_PIPE, anon_sym_AMP, anon_sym_GT_GT, anon_sym_SLASH, anon_sym_BANG]), (ACTIONS
       3028, 26, [anon_sym_RBRACE, anon_sym_LBRACK, anon_sym_COMMA, anon_sym_RBRACK,
       anon_sym_COLON, anon_sym_LPAREN, anon_sym_RPAREN, anon_sym_QMARK_QMARK,
       sym_equality_operator, anon_sym_LT_EQ, anon_sym_GT_EQ, anon_sym_CARET, anon_sym_LT_LT,
       anon_sym_GT_GT_GT, sym__additive_operator, anon_sym_STAR, anon_sym_PERCENT,
       anon_sym_TILDE_SLASH, anon_sym_is, anon_sym_as, anon_sym_DOT, anon_sym_QMARK_DOT,
       anon_sym_EQ_GT, anon_sym_when, anon_sym_AMP_AMP, anon_sym_PIPE_PIPE])])]"

lemma small_run_452: "small_run 1249 60846 ts_small_parse_table_452 1251 60966"
  by (simp add: small_simps ts_small_parse_table_452_def)

definition ts_small_parse_table_453 :: "small_group list" where
  "ts_small_parse_table_453 = [
     (60966, 13, [(ACTIONS 3, 1, [anon_sym_SLASH_SLASH]), (ACTIONS 5, 1,
       [anon_sym_SLASH_STAR]), (ACTIONS 7, 1, [anon_sym_SLASH_SLASH_SLASH]), (ACTIONS 9, 1,
       [sym__block_comment]), (ACTIONS 11, 1, [sym__documentation_block_comment]), (ACTIONS 2477,
       1, [anon_sym_SLASH]), (STATE 430, 1, [sym_multiplicative_operator]), (STATE 1235, 1,
       [aux_sym_multiplicative_expression_repeat1]), (STATE 1416, 1,
       [sym__multiplicative_operator]), (STATE 1251, 2, [sym_comment,
       sym_documentation_comment]), (ACTIONS 2475, 3, [anon_sym_STAR, anon_sym_PERCENT,
       anon_sym_TILDE_SLASH]), (ACTIONS 2491, 8, [anon_sym_QMARK, anon_sym_LT, anon_sym_GT,
       anon_sym_PIPE, anon_sym_AMP, anon_sym_GT_GT, anon_sym_as, anon_sym_async]), (ACTIONS 2489,
       19, [anon_sym_LBRACE, anon_sym_COMMA, anon_sym_QMARK_QMARK, sym_equality_operator,
       anon_sym_LT_EQ, anon_sym_GT_EQ, anon_sym_CARET, anon_sym_LT_LT, anon_sym_GT_GT_GT,
       sym__additive_operator, anon_sym_is, anon_sym_DOT_DOT, anon_sym_QMARK_DOT_DOT,
       anon_sym_SEMI, anon_sym_EQ_GT, anon_sym_async_STAR, anon_sym_sync_STAR, anon_sym_AMP_AMP,
       anon_sym_PIPE_PIPE])]),
     (61034, 8, [(ACTIONS 3, 1, [anon_sym_SLASH_SLASH]), (ACTIONS 5, 1, [anon_sym_SLASH_STAR]),
       (ACTIONS 7, 1, [anon_sym_SLASH_SLASH_SLASH]), (ACTIONS 9, 1, [sym__block_comment]),
       (ACTIONS 11, 1, [sym__documentation_block_comment]), (STATE 1252, 2, [sym_comment,
       sym_documentation_comment]), (ACTIONS 1821, 8, [anon_sym_QMARK, anon_sym_LT, anon_sym_GT,
       anon_sym_PIPE, anon_sym_AMP, anon_sym_GT_GT, anon_sym_SLASH, anon_sym_BANG]), (ACTIONS
       1819, 26, [anon_sym_RBRACE, anon_sym_LBRACK, anon_sym_COMMA, anon_sym_RBRACK,
       anon_sym_COLON, anon_sym_LPAREN, anon_sym_RPAREN, anon_sym_QMARK_QMARK,
       sym_equality_operator, anon_sym_LT_EQ, anon_sym_GT_EQ, anon_sym_CARET, anon_sym_LT_LT,
       anon_sym_GT_GT_GT, sym__additive_operator, anon_sym_STAR, anon_sym_PERCENT,
       anon_sym_TILDE_SLASH, anon_sym_is, anon_sym_as, anon_sym_DOT, anon_sym_QMARK_DOT,
       anon_sym_EQ_GT, anon_sym_when, anon_sym_AMP_AMP, anon_sym_PIPE_PIPE])])]"

lemma small_run_453: "small_run 1251 60966 ts_small_parse_table_453 1253 61092"
  by (simp add: small_simps ts_small_parse_table_453_def)

definition ts_small_parse_table_454 :: "small_group list" where
  "ts_small_parse_table_454 = [
     (61092, 8, [(ACTIONS 3, 1, [anon_sym_SLASH_SLASH]), (ACTIONS 5, 1, [anon_sym_SLASH_STAR]),
       (ACTIONS 7, 1, [anon_sym_SLASH_SLASH_SLASH]), (ACTIONS 9, 1, [sym__block_comment]),
       (ACTIONS 11, 1, [sym__documentation_block_comment]), (STATE 1253, 2, [sym_comment,
       sym_documentation_comment]), (ACTIONS 1729, 8, [anon_sym_QMARK, anon_sym_LT, anon_sym_GT,
       anon_sym_PIPE, anon_sym_AMP, anon_sym_GT_GT, anon_sym_SLASH, anon_sym_BANG]), (ACTIONS
       1727, 26, [anon_sym_RBRACE, anon_sym_LBRACK, anon_sym_COMMA, anon_sym_RBRACK,
       anon_sym_COLON, anon_sym_LPAREN, anon_sym_RPAREN, anon_sym_QMARK_QMARK,
       sym_equality_operator, anon_sym_LT_EQ, anon_sym_GT_EQ, anon_sym_CARET, anon_sym_LT_LT,
       anon_sym_GT_GT_GT, sym__additive_operator, anon_sym_STAR, anon_sym_PERCENT,
       anon_sym_TILDE_SLASH, anon_sym_is, anon_sym_as, anon_sym_DOT, anon_sym_QMARK_DOT,
       anon_sym_EQ_GT, anon_sym_when, anon_sym_AMP_AMP, anon_sym_PIPE_PIPE])]),
     (61150, 9, [(ACTIONS 3, 1, [anon_sym_SLASH_SLASH]), (ACTIONS 5, 1, [anon_sym_SLASH_STAR]),
       (ACTIONS 7, 1, [anon_sym_SLASH_SLASH_SLASH]), (ACTIONS 9, 1, [sym__block_comment]),
       (ACTIONS 11, 1, [sym__documentation_block_comment]), (ACTIONS 3201, 1, [anon_sym_DOT]),
       (STATE 1254, 2, [sym_comment, sym_documentation_comment]), (ACTIONS 1332, 9,
       [anon_sym_QMARK, anon_sym_LT, anon_sym_GT, anon_sym_PIPE, anon_sym_AMP, anon_sym_GT_GT,
       anon_sym_SLASH, anon_sym_BANG, anon_sym_QMARK_DOT]), (ACTIONS 1322, 24, [anon_sym_RBRACE,
       anon_sym_LBRACK, anon_sym_COMMA, anon_sym_RBRACK, anon_sym_COLON, anon_sym_LPAREN,
       anon_sym_RPAREN, anon_sym_QMARK_QMARK, sym_equality_operator, anon_sym_LT_EQ,
       anon_sym_GT_EQ, anon_sym_CARET, anon_sym_LT_LT, anon_sym_GT_GT_GT, sym__additive_operator,
       anon_sym_STAR, anon_sym_PERCENT, anon_sym_TILDE_SLASH, anon_sym_is, anon_sym_as,
       anon_sym_DOT_DOT, anon_sym_QMARK_DOT_DOT, anon_sym_AMP_AMP, anon_sym_PIPE_PIPE])])]"

lemma small_run_454: "small_run 1253 61092 ts_small_parse_table_454 1255 61210"
  by (simp add: small_simps ts_small_parse_table_454_def)

definition ts_small_parse_table_455 :: "small_group list" where
  "ts_small_parse_table_455 = [
     (61210, 8, [(ACTIONS 3, 1, [anon_sym_SLASH_SLASH]), (ACTIONS 5, 1, [anon_sym_SLASH_STAR]),
       (ACTIONS 7, 1, [anon_sym_SLASH_SLASH_SLASH]), (ACTIONS 9, 1, [sym__block_comment]),
       (ACTIONS 11, 1, [sym__documentation_block_comment]), (STATE 1255, 2, [sym_comment,
       sym_documentation_comment]), (ACTIONS 1686, 8, [anon_sym_QMARK, anon_sym_LT, anon_sym_GT,
       anon_sym_PIPE, anon_sym_AMP, anon_sym_GT_GT, anon_sym_SLASH, anon_sym_BANG]), (ACTIONS
       1680, 26, [anon_sym_RBRACE, anon_sym_LBRACK, anon_sym_COMMA, anon_sym_RBRACK,
       anon_sym_COLON, anon_sym_LPAREN, anon_sym_RPAREN, anon_sym_QMARK_QMARK,
       sym_equality_operator, anon_sym_LT_EQ, anon_sym_GT_EQ, anon_sym_CARET, anon_sym_LT_LT,
       anon_sym_GT_GT_GT, sym__additive_operator, anon_sym_STAR, anon_sym_PERCENT,
       anon_sym_TILDE_SLASH, anon_sym_is, anon_sym_as, anon_sym_DOT, anon_sym_QMARK_DOT,
       anon_sym_EQ_GT, anon_sym_when, anon_sym_AMP_AMP, anon_sym_PIPE_PIPE])]),
     (61268, 8, [(ACTIONS 3, 1, [anon_sym_SLASH_SLASH]), (ACTIONS 5, 1, [anon_sym_SLASH_STAR]),
       (ACTIONS 7, 1, [anon_sym_SLASH_SLASH_SLASH]), (ACTIONS 9, 1, [sym__block_comment]),
       (ACTIONS 11, 1, [sym__documentation_block_comment]), (STATE 1256, 2, [sym_comment,
       sym_documentation_comment]), (ACTIONS 2994, 8, [anon_sym_QMARK, anon_sym_LT, anon_sym_GT,
       anon_sym_PIPE, anon_sym_AMP, anon_sym_GT_GT, anon_sym_SLASH, anon_sym_BANG]), (ACTIONS
       2992, 26, [anon_sym_RBRACE, anon_sym_LBRACK, anon_sym_COMMA, anon_sym_RBRACK,
       anon_sym_COLON, anon_sym_LPAREN, anon_sym_RPAREN, anon_sym_QMARK_QMARK,
       sym_equality_operator, anon_sym_LT_EQ, anon_sym_GT_EQ, anon_sym_CARET, anon_sym_LT_LT,
       anon_sym_GT_GT_GT, sym__additive_operator, anon_sym_STAR, anon_sym_PERCENT,
       anon_sym_TILDE_SLASH, anon_sym_is, anon_sym_as, anon_sym_DOT, anon_sym_QMARK_DOT,
       anon_sym_EQ_GT, anon_sym_when, anon_sym_AMP_AMP, anon_sym_PIPE_PIPE])]),
     (61326, 8, [(ACTIONS 3, 1, [anon_sym_SLASH_SLASH]), (ACTIONS 5, 1, [anon_sym_SLASH_STAR]),
       (ACTIONS 7, 1, [anon_sym_SLASH_SLASH_SLASH]), (ACTIONS 9, 1, [sym__block_comment]),
       (ACTIONS 11, 1, [sym__documentation_block_comment]), (STATE 1257, 2, [sym_comment,
       sym_documentation_comment]), (ACTIONS 2688, 8, [anon_sym_QMARK, anon_sym_LT, anon_sym_GT,
       anon_sym_PIPE, anon_sym_AMP, anon_sym_GT_GT, anon_sym_SLASH, anon_sym_BANG]), (ACTIONS
       2686, 26, [anon_sym_RBRACE, anon_sym_LBRACK, anon_sym_COMMA, anon_sym_RBRACK,
       anon_sym_COLON, anon_sym_LPAREN, anon_sym_RPAREN, anon_sym_QMARK_QMARK,
       sym_equality_operator, anon_sym_LT_EQ, anon_sym_GT_EQ, anon_sym_CARET, anon_sym_LT_LT,
       anon_sym_GT_GT_GT, sym__additive_operator, anon_sym_STAR, anon_sym_PERCENT,
       anon_sym_TILDE_SLASH, anon_sym_is, anon_sym_as, anon_sym_DOT, anon_sym_QMARK_DOT,
       anon_sym_EQ_GT, anon_sym_when, anon_sym_AMP_AMP, anon_sym_PIPE_PIPE])])]"

lemma small_run_455: "small_run 1255 61210 ts_small_parse_table_455 1258 61384"
  by (simp add: small_simps ts_small_parse_table_455_def)

definition ts_small_parse_table_part_4 :: "small_group list" where
  "ts_small_parse_table_part_4 =
     ts_small_parse_table_336 @ ts_small_parse_table_337 @ ts_small_parse_table_338 @
     ts_small_parse_table_339 @ ts_small_parse_table_340 @ ts_small_parse_table_341 @
     ts_small_parse_table_342 @ ts_small_parse_table_343 @ ts_small_parse_table_344 @
     ts_small_parse_table_345 @ ts_small_parse_table_346 @ ts_small_parse_table_347 @
     ts_small_parse_table_348 @ ts_small_parse_table_349 @ ts_small_parse_table_350 @
     ts_small_parse_table_351 @ ts_small_parse_table_352 @ ts_small_parse_table_353 @
     ts_small_parse_table_354 @ ts_small_parse_table_355 @ ts_small_parse_table_356 @
     ts_small_parse_table_357 @ ts_small_parse_table_358 @ ts_small_parse_table_359 @
     ts_small_parse_table_360 @ ts_small_parse_table_361 @ ts_small_parse_table_362 @
     ts_small_parse_table_363 @ ts_small_parse_table_364 @ ts_small_parse_table_365 @
     ts_small_parse_table_366 @ ts_small_parse_table_367 @ ts_small_parse_table_368 @
     ts_small_parse_table_369 @ ts_small_parse_table_370 @ ts_small_parse_table_371 @
     ts_small_parse_table_372 @ ts_small_parse_table_373 @ ts_small_parse_table_374 @
     ts_small_parse_table_375 @ ts_small_parse_table_376 @ ts_small_parse_table_377 @
     ts_small_parse_table_378 @ ts_small_parse_table_379 @ ts_small_parse_table_380 @
     ts_small_parse_table_381 @ ts_small_parse_table_382 @ ts_small_parse_table_383 @
     ts_small_parse_table_384 @ ts_small_parse_table_385 @ ts_small_parse_table_386 @
     ts_small_parse_table_387 @ ts_small_parse_table_388 @ ts_small_parse_table_389 @
     ts_small_parse_table_390 @ ts_small_parse_table_391 @ ts_small_parse_table_392 @
     ts_small_parse_table_393 @ ts_small_parse_table_394 @ ts_small_parse_table_395 @
     ts_small_parse_table_396 @ ts_small_parse_table_397 @ ts_small_parse_table_398 @
     ts_small_parse_table_399 @ ts_small_parse_table_400 @ ts_small_parse_table_401 @
     ts_small_parse_table_402 @ ts_small_parse_table_403 @ ts_small_parse_table_404 @
     ts_small_parse_table_405 @ ts_small_parse_table_406 @ ts_small_parse_table_407 @
     ts_small_parse_table_408 @ ts_small_parse_table_409 @ ts_small_parse_table_410 @
     ts_small_parse_table_411 @ ts_small_parse_table_412 @ ts_small_parse_table_413 @
     ts_small_parse_table_414 @ ts_small_parse_table_415 @ ts_small_parse_table_416 @
     ts_small_parse_table_417 @ ts_small_parse_table_418 @ ts_small_parse_table_419 @
     ts_small_parse_table_420 @ ts_small_parse_table_421 @ ts_small_parse_table_422 @
     ts_small_parse_table_423 @ ts_small_parse_table_424 @ ts_small_parse_table_425 @
     ts_small_parse_table_426 @ ts_small_parse_table_427 @ ts_small_parse_table_428 @
     ts_small_parse_table_429 @ ts_small_parse_table_430 @ ts_small_parse_table_431 @
     ts_small_parse_table_432 @ ts_small_parse_table_433 @ ts_small_parse_table_434 @
     ts_small_parse_table_435 @ ts_small_parse_table_436 @ ts_small_parse_table_437 @
     ts_small_parse_table_438 @ ts_small_parse_table_439 @ ts_small_parse_table_440 @
     ts_small_parse_table_441 @ ts_small_parse_table_442 @ ts_small_parse_table_443 @
     ts_small_parse_table_444 @ ts_small_parse_table_445 @ ts_small_parse_table_446 @
     ts_small_parse_table_447 @ ts_small_parse_table_448 @ ts_small_parse_table_449 @
     ts_small_parse_table_450 @ ts_small_parse_table_451 @ ts_small_parse_table_452 @
     ts_small_parse_table_453 @ ts_small_parse_table_454 @ ts_small_parse_table_455"

lemma small_part_4: "small_run 1012 45984 ts_small_parse_table_part_4 1258 61384"
  unfolding ts_small_parse_table_part_4_def
  by (rule small_run_append [OF small_run_336], rule small_run_append [OF small_run_337],
    rule small_run_append [OF small_run_338], rule small_run_append [OF small_run_339],
    rule small_run_append [OF small_run_340], rule small_run_append [OF small_run_341],
    rule small_run_append [OF small_run_342], rule small_run_append [OF small_run_343],
    rule small_run_append [OF small_run_344], rule small_run_append [OF small_run_345],
    rule small_run_append [OF small_run_346], rule small_run_append [OF small_run_347],
    rule small_run_append [OF small_run_348], rule small_run_append [OF small_run_349],
    rule small_run_append [OF small_run_350], rule small_run_append [OF small_run_351],
    rule small_run_append [OF small_run_352], rule small_run_append [OF small_run_353],
    rule small_run_append [OF small_run_354], rule small_run_append [OF small_run_355],
    rule small_run_append [OF small_run_356], rule small_run_append [OF small_run_357],
    rule small_run_append [OF small_run_358], rule small_run_append [OF small_run_359],
    rule small_run_append [OF small_run_360], rule small_run_append [OF small_run_361],
    rule small_run_append [OF small_run_362], rule small_run_append [OF small_run_363],
    rule small_run_append [OF small_run_364], rule small_run_append [OF small_run_365],
    rule small_run_append [OF small_run_366], rule small_run_append [OF small_run_367],
    rule small_run_append [OF small_run_368], rule small_run_append [OF small_run_369],
    rule small_run_append [OF small_run_370], rule small_run_append [OF small_run_371],
    rule small_run_append [OF small_run_372], rule small_run_append [OF small_run_373],
    rule small_run_append [OF small_run_374], rule small_run_append [OF small_run_375],
    rule small_run_append [OF small_run_376], rule small_run_append [OF small_run_377],
    rule small_run_append [OF small_run_378], rule small_run_append [OF small_run_379],
    rule small_run_append [OF small_run_380], rule small_run_append [OF small_run_381],
    rule small_run_append [OF small_run_382], rule small_run_append [OF small_run_383],
    rule small_run_append [OF small_run_384], rule small_run_append [OF small_run_385],
    rule small_run_append [OF small_run_386], rule small_run_append [OF small_run_387],
    rule small_run_append [OF small_run_388], rule small_run_append [OF small_run_389],
    rule small_run_append [OF small_run_390], rule small_run_append [OF small_run_391],
    rule small_run_append [OF small_run_392], rule small_run_append [OF small_run_393],
    rule small_run_append [OF small_run_394], rule small_run_append [OF small_run_395],
    rule small_run_append [OF small_run_396], rule small_run_append [OF small_run_397],
    rule small_run_append [OF small_run_398], rule small_run_append [OF small_run_399],
    rule small_run_append [OF small_run_400], rule small_run_append [OF small_run_401],
    rule small_run_append [OF small_run_402], rule small_run_append [OF small_run_403],
    rule small_run_append [OF small_run_404], rule small_run_append [OF small_run_405],
    rule small_run_append [OF small_run_406], rule small_run_append [OF small_run_407],
    rule small_run_append [OF small_run_408], rule small_run_append [OF small_run_409],
    rule small_run_append [OF small_run_410], rule small_run_append [OF small_run_411],
    rule small_run_append [OF small_run_412], rule small_run_append [OF small_run_413],
    rule small_run_append [OF small_run_414], rule small_run_append [OF small_run_415],
    rule small_run_append [OF small_run_416], rule small_run_append [OF small_run_417],
    rule small_run_append [OF small_run_418], rule small_run_append [OF small_run_419],
    rule small_run_append [OF small_run_420], rule small_run_append [OF small_run_421],
    rule small_run_append [OF small_run_422], rule small_run_append [OF small_run_423],
    rule small_run_append [OF small_run_424], rule small_run_append [OF small_run_425],
    rule small_run_append [OF small_run_426], rule small_run_append [OF small_run_427],
    rule small_run_append [OF small_run_428], rule small_run_append [OF small_run_429],
    rule small_run_append [OF small_run_430], rule small_run_append [OF small_run_431],
    rule small_run_append [OF small_run_432], rule small_run_append [OF small_run_433],
    rule small_run_append [OF small_run_434], rule small_run_append [OF small_run_435],
    rule small_run_append [OF small_run_436], rule small_run_append [OF small_run_437],
    rule small_run_append [OF small_run_438], rule small_run_append [OF small_run_439],
    rule small_run_append [OF small_run_440], rule small_run_append [OF small_run_441],
    rule small_run_append [OF small_run_442], rule small_run_append [OF small_run_443],
    rule small_run_append [OF small_run_444], rule small_run_append [OF small_run_445],
    rule small_run_append [OF small_run_446], rule small_run_append [OF small_run_447],
    rule small_run_append [OF small_run_448], rule small_run_append [OF small_run_449],
    rule small_run_append [OF small_run_450], rule small_run_append [OF small_run_451],
    rule small_run_append [OF small_run_452], rule small_run_append [OF small_run_453],
    rule small_run_append [OF small_run_454], rule small_run_455)

end
