(* ===== verification/Dart_Small_5.thy ===== *)
theory Dart_Small_5
  imports Dart_Items
begin

text \<open>
  The groups of \<^verbatim>\<open>ts_small_parse_table\<close> for the states 1258 to 1507, in blocks of at most 150 lines of
  the source, each with the check of its layout and of its entries.
\<close>

definition ts_small_parse_table_456 :: "small_group list" where
  "ts_small_parse_table_456 = [
     (61384, 11, [(ACTIONS 3, 1, [anon_sym_SLASH_SLASH]), (ACTIONS 5, 1,
       [anon_sym_SLASH_STAR]), (ACTIONS 7, 1, [anon_sym_SLASH_SLASH_SLASH]), (ACTIONS 9, 1,
       [sym__block_comment]), (ACTIONS 11, 1, [sym__documentation_block_comment]), (ACTIONS 1686,
       1, [anon_sym_BANG]), (ACTIONS 2869, 2, [anon_sym_QMARK, anon_sym_LT]), (STATE 1258, 2,
       [sym_comment, sym_documentation_comment]), (ACTIONS 1680, 4, [anon_sym_LBRACK,
       anon_sym_LPAREN, anon_sym_DOT, anon_sym_QMARK_DOT]), (ACTIONS 1682, 5, [anon_sym_GT,
       anon_sym_PIPE, anon_sym_AMP, anon_sym_GT_GT, anon_sym_SLASH]), (ACTIONS 1684, 22,
       [anon_sym_RBRACE, anon_sym_COMMA, anon_sym_RBRACK, anon_sym_COLON, anon_sym_RPAREN,
       anon_sym_QMARK_QMARK, sym_equality_operator, anon_sym_LT_EQ, anon_sym_GT_EQ,
       anon_sym_CARET, anon_sym_LT_LT, anon_sym_GT_GT_GT, sym__additive_operator, anon_sym_STAR,
       anon_sym_PERCENT, anon_sym_TILDE_SLASH, anon_sym_is, anon_sym_as, anon_sym_EQ_GT,
       anon_sym_when, anon_sym_AMP_AMP, anon_sym_PIPE_PIPE])]),
     (61448, 11, [(ACTIONS 3, 1, [anon_sym_SLASH_SLASH]), (ACTIONS 5, 1,
       [anon_sym_SLASH_STAR]), (ACTIONS 7, 1, [anon_sym_SLASH_SLASH_SLASH]), (ACTIONS 9, 1,
       [sym__block_comment]), (ACTIONS 11, 1, [sym__documentation_block_comment]), (ACTIONS 1678,
       1, [anon_sym_BANG]), (ACTIONS 2859, 2, [anon_sym_QMARK, anon_sym_LT]), (STATE 1259, 2,
       [sym_comment, sym_documentation_comment]), (ACTIONS 1672, 4, [anon_sym_LBRACK,
       anon_sym_LPAREN, anon_sym_DOT, anon_sym_QMARK_DOT]), (ACTIONS 1674, 5, [anon_sym_GT,
       anon_sym_PIPE, anon_sym_AMP, anon_sym_GT_GT, anon_sym_SLASH]), (ACTIONS 1676, 22,
       [anon_sym_RBRACE, anon_sym_COMMA, anon_sym_RBRACK, anon_sym_COLON, anon_sym_RPAREN,
       anon_sym_QMARK_QMARK, sym_equality_operator, anon_sym_LT_EQ, anon_sym_GT_EQ,
       anon_sym_CARET, anon_sym_LT_LT, anon_sym_GT_GT_GT, sym__additive_operator, anon_sym_STAR,
       anon_sym_PERCENT, anon_sym_TILDE_SLASH, anon_sym_is, anon_sym_as, anon_sym_EQ_GT,
       anon_sym_when, anon_sym_AMP_AMP, anon_sym_PIPE_PIPE])])]"

lemma small_run_456: "small_run 1258 61384 ts_small_parse_table_456 1260 61512"
  by (simp add: small_simps ts_small_parse_table_456_def)

definition ts_small_parse_table_457 :: "small_group list" where
  "ts_small_parse_table_457 = [
     (61512, 13, [(ACTIONS 3, 1, [anon_sym_SLASH_SLASH]), (ACTIONS 5, 1,
       [anon_sym_SLASH_STAR]), (ACTIONS 7, 1, [anon_sym_SLASH_SLASH_SLASH]), (ACTIONS 9, 1,
       [sym__block_comment]), (ACTIONS 11, 1, [sym__documentation_block_comment]), (ACTIONS 2477,
       1, [anon_sym_SLASH]), (STATE 430, 1, [sym_multiplicative_operator]), (STATE 1251, 1,
       [aux_sym_multiplicative_expression_repeat1]), (STATE 1416, 1,
       [sym__multiplicative_operator]), (STATE 1260, 2, [sym_comment,
       sym_documentation_comment]), (ACTIONS 2475, 3, [anon_sym_STAR, anon_sym_PERCENT,
       anon_sym_TILDE_SLASH]), (ACTIONS 2473, 8, [anon_sym_QMARK, anon_sym_LT, anon_sym_GT,
       anon_sym_PIPE, anon_sym_AMP, anon_sym_GT_GT, anon_sym_as, anon_sym_async]), (ACTIONS 2471,
       19, [anon_sym_LBRACE, anon_sym_COMMA, anon_sym_QMARK_QMARK, sym_equality_operator,
       anon_sym_LT_EQ, anon_sym_GT_EQ, anon_sym_CARET, anon_sym_LT_LT, anon_sym_GT_GT_GT,
       sym__additive_operator, anon_sym_is, anon_sym_DOT_DOT, anon_sym_QMARK_DOT_DOT,
       anon_sym_SEMI, anon_sym_EQ_GT, anon_sym_async_STAR, anon_sym_sync_STAR, anon_sym_AMP_AMP,
       anon_sym_PIPE_PIPE])]),
     (61580, 8, [(ACTIONS 3, 1, [anon_sym_SLASH_SLASH]), (ACTIONS 5, 1, [anon_sym_SLASH_STAR]),
       (ACTIONS 7, 1, [anon_sym_SLASH_SLASH_SLASH]), (ACTIONS 9, 1, [sym__block_comment]),
       (ACTIONS 11, 1, [sym__documentation_block_comment]), (STATE 1261, 2, [sym_comment,
       sym_documentation_comment]), (ACTIONS 3044, 8, [anon_sym_QMARK, anon_sym_LT, anon_sym_GT,
       anon_sym_PIPE, anon_sym_AMP, anon_sym_GT_GT, anon_sym_SLASH, anon_sym_BANG]), (ACTIONS
       3042, 26, [anon_sym_RBRACE, anon_sym_LBRACK, anon_sym_COMMA, anon_sym_RBRACK,
       anon_sym_COLON, anon_sym_LPAREN, anon_sym_RPAREN, anon_sym_QMARK_QMARK,
       sym_equality_operator, anon_sym_LT_EQ, anon_sym_GT_EQ, anon_sym_CARET, anon_sym_LT_LT,
       anon_sym_GT_GT_GT, sym__additive_operator, anon_sym_STAR, anon_sym_PERCENT,
       anon_sym_TILDE_SLASH, anon_sym_is, anon_sym_as, anon_sym_DOT, anon_sym_QMARK_DOT,
       anon_sym_EQ_GT, anon_sym_when, anon_sym_AMP_AMP, anon_sym_PIPE_PIPE])])]"

lemma small_run_457: "small_run 1260 61512 ts_small_parse_table_457 1262 61638"
  by (simp add: small_simps ts_small_parse_table_457_def)

definition ts_small_parse_table_458 :: "small_group list" where
  "ts_small_parse_table_458 = [
     (61638, 8, [(ACTIONS 3, 1, [anon_sym_SLASH_SLASH]), (ACTIONS 5, 1, [anon_sym_SLASH_STAR]),
       (ACTIONS 7, 1, [anon_sym_SLASH_SLASH_SLASH]), (ACTIONS 9, 1, [sym__block_comment]),
       (ACTIONS 11, 1, [sym__documentation_block_comment]), (STATE 1262, 2, [sym_comment,
       sym_documentation_comment]), (ACTIONS 3096, 8, [anon_sym_QMARK, anon_sym_LT, anon_sym_GT,
       anon_sym_PIPE, anon_sym_AMP, anon_sym_GT_GT, anon_sym_SLASH, anon_sym_BANG]), (ACTIONS
       3094, 26, [anon_sym_RBRACE, anon_sym_LBRACK, anon_sym_COMMA, anon_sym_RBRACK,
       anon_sym_COLON, anon_sym_LPAREN, anon_sym_RPAREN, anon_sym_QMARK_QMARK,
       sym_equality_operator, anon_sym_LT_EQ, anon_sym_GT_EQ, anon_sym_CARET, anon_sym_LT_LT,
       anon_sym_GT_GT_GT, sym__additive_operator, anon_sym_STAR, anon_sym_PERCENT,
       anon_sym_TILDE_SLASH, anon_sym_is, anon_sym_as, anon_sym_DOT, anon_sym_QMARK_DOT,
       anon_sym_EQ_GT, anon_sym_when, anon_sym_AMP_AMP, anon_sym_PIPE_PIPE])]),
     (61696, 8, [(ACTIONS 3, 1, [anon_sym_SLASH_SLASH]), (ACTIONS 5, 1, [anon_sym_SLASH_STAR]),
       (ACTIONS 7, 1, [anon_sym_SLASH_SLASH_SLASH]), (ACTIONS 9, 1, [sym__block_comment]),
       (ACTIONS 11, 1, [sym__documentation_block_comment]), (STATE 1263, 2, [sym_comment,
       sym_documentation_comment]), (ACTIONS 2990, 8, [anon_sym_QMARK, anon_sym_LT, anon_sym_GT,
       anon_sym_PIPE, anon_sym_AMP, anon_sym_GT_GT, anon_sym_SLASH, anon_sym_BANG]), (ACTIONS
       2988, 26, [anon_sym_RBRACE, anon_sym_LBRACK, anon_sym_COMMA, anon_sym_RBRACK,
       anon_sym_COLON, anon_sym_LPAREN, anon_sym_RPAREN, anon_sym_QMARK_QMARK,
       sym_equality_operator, anon_sym_LT_EQ, anon_sym_GT_EQ, anon_sym_CARET, anon_sym_LT_LT,
       anon_sym_GT_GT_GT, sym__additive_operator, anon_sym_STAR, anon_sym_PERCENT,
       anon_sym_TILDE_SLASH, anon_sym_is, anon_sym_as, anon_sym_DOT, anon_sym_QMARK_DOT,
       anon_sym_EQ_GT, anon_sym_when, anon_sym_AMP_AMP, anon_sym_PIPE_PIPE])]),
     (61754, 8, [(ACTIONS 3, 1, [anon_sym_SLASH_SLASH]), (ACTIONS 5, 1, [anon_sym_SLASH_STAR]),
       (ACTIONS 7, 1, [anon_sym_SLASH_SLASH_SLASH]), (ACTIONS 9, 1, [sym__block_comment]),
       (ACTIONS 11, 1, [sym__documentation_block_comment]), (STATE 1264, 2, [sym_comment,
       sym_documentation_comment]), (ACTIONS 2820, 8, [anon_sym_QMARK, anon_sym_LT, anon_sym_GT,
       anon_sym_PIPE, anon_sym_AMP, anon_sym_GT_GT, anon_sym_SLASH, anon_sym_BANG]), (ACTIONS
       2818, 26, [anon_sym_RBRACE, anon_sym_LBRACK, anon_sym_COMMA, anon_sym_RBRACK,
       anon_sym_COLON, anon_sym_LPAREN, anon_sym_RPAREN, anon_sym_QMARK_QMARK,
       sym_equality_operator, anon_sym_LT_EQ, anon_sym_GT_EQ, anon_sym_CARET, anon_sym_LT_LT,
       anon_sym_GT_GT_GT, sym__additive_operator, anon_sym_STAR, anon_sym_PERCENT,
       anon_sym_TILDE_SLASH, anon_sym_is, anon_sym_as, anon_sym_DOT, anon_sym_QMARK_DOT,
       anon_sym_EQ_GT, anon_sym_when, anon_sym_AMP_AMP, anon_sym_PIPE_PIPE])])]"

lemma small_run_458: "small_run 1262 61638 ts_small_parse_table_458 1265 61812"
  by (simp add: small_simps ts_small_parse_table_458_def)

definition ts_small_parse_table_459 :: "small_group list" where
  "ts_small_parse_table_459 = [
     (61812, 10, [(ACTIONS 3, 1, [anon_sym_SLASH_SLASH]), (ACTIONS 5, 1,
       [anon_sym_SLASH_STAR]), (ACTIONS 7, 1, [anon_sym_SLASH_SLASH_SLASH]), (ACTIONS 9, 1,
       [sym__block_comment]), (ACTIONS 11, 1, [sym__documentation_block_comment]), (ACTIONS 3207,
       2, [anon_sym_QMARK, anon_sym_BANG]), (STATE 1265, 2, [sym_comment,
       sym_documentation_comment]), (ACTIONS 3204, 7, [anon_sym_RBRACE, anon_sym_COMMA,
       anon_sym_RBRACK, anon_sym_RPAREN, anon_sym_as, anon_sym_AMP_AMP, anon_sym_PIPE_PIPE]),
       (ACTIONS 2850, 8, [anon_sym_LT, anon_sym_GT, anon_sym_PIPE, anon_sym_AMP, anon_sym_GT_GT,
       anon_sym_SLASH, anon_sym_DOT, anon_sym_QMARK_DOT]), (ACTIONS 2848, 17, [anon_sym_LBRACK,
       anon_sym_COLON, anon_sym_LPAREN, anon_sym_QMARK_QMARK, sym_equality_operator,
       anon_sym_LT_EQ, anon_sym_GT_EQ, anon_sym_CARET, anon_sym_LT_LT, anon_sym_GT_GT_GT,
       sym__additive_operator, anon_sym_STAR, anon_sym_PERCENT, anon_sym_TILDE_SLASH,
       anon_sym_is, anon_sym_DOT_DOT, anon_sym_QMARK_DOT_DOT])]),
     (61874, 10, [(ACTIONS 3, 1, [anon_sym_SLASH_SLASH]), (ACTIONS 5, 1,
       [anon_sym_SLASH_STAR]), (ACTIONS 7, 1, [anon_sym_SLASH_SLASH_SLASH]), (ACTIONS 9, 1,
       [sym__block_comment]), (ACTIONS 11, 1, [sym__documentation_block_comment]), (ACTIONS 3213,
       2, [anon_sym_QMARK, anon_sym_BANG]), (STATE 1266, 2, [sym_comment,
       sym_documentation_comment]), (ACTIONS 3210, 7, [anon_sym_RBRACE, anon_sym_COMMA,
       anon_sym_RBRACK, anon_sym_RPAREN, anon_sym_as, anon_sym_AMP_AMP, anon_sym_PIPE_PIPE]),
       (ACTIONS 2854, 8, [anon_sym_LT, anon_sym_GT, anon_sym_PIPE, anon_sym_AMP, anon_sym_GT_GT,
       anon_sym_SLASH, anon_sym_DOT, anon_sym_QMARK_DOT]), (ACTIONS 2852, 17, [anon_sym_LBRACK,
       anon_sym_COLON, anon_sym_LPAREN, anon_sym_QMARK_QMARK, sym_equality_operator,
       anon_sym_LT_EQ, anon_sym_GT_EQ, anon_sym_CARET, anon_sym_LT_LT, anon_sym_GT_GT_GT,
       sym__additive_operator, anon_sym_STAR, anon_sym_PERCENT, anon_sym_TILDE_SLASH,
       anon_sym_is, anon_sym_DOT_DOT, anon_sym_QMARK_DOT_DOT])])]"

lemma small_run_459: "small_run 1265 61812 ts_small_parse_table_459 1267 61936"
  by (simp add: small_simps ts_small_parse_table_459_def)

definition ts_small_parse_table_460 :: "small_group list" where
  "ts_small_parse_table_460 = [
     (61936, 8, [(ACTIONS 3, 1, [anon_sym_SLASH_SLASH]), (ACTIONS 5, 1, [anon_sym_SLASH_STAR]),
       (ACTIONS 7, 1, [anon_sym_SLASH_SLASH_SLASH]), (ACTIONS 9, 1, [sym__block_comment]),
       (ACTIONS 11, 1, [sym__documentation_block_comment]), (STATE 1267, 2, [sym_comment,
       sym_documentation_comment]), (ACTIONS 1277, 8, [anon_sym_QMARK, anon_sym_LT, anon_sym_GT,
       anon_sym_PIPE, anon_sym_AMP, anon_sym_GT_GT, anon_sym_SLASH, anon_sym_BANG]), (ACTIONS
       1257, 26, [anon_sym_RBRACE, anon_sym_LBRACK, anon_sym_COMMA, anon_sym_RBRACK,
       anon_sym_COLON, anon_sym_LPAREN, anon_sym_RPAREN, anon_sym_QMARK_QMARK,
       sym_equality_operator, anon_sym_LT_EQ, anon_sym_GT_EQ, anon_sym_CARET, anon_sym_LT_LT,
       anon_sym_GT_GT_GT, sym__additive_operator, anon_sym_STAR, anon_sym_PERCENT,
       anon_sym_TILDE_SLASH, anon_sym_is, anon_sym_as, anon_sym_DOT, anon_sym_QMARK_DOT,
       anon_sym_EQ_GT, anon_sym_when, anon_sym_AMP_AMP, anon_sym_PIPE_PIPE])]),
     (61994, 8, [(ACTIONS 3, 1, [anon_sym_SLASH_SLASH]), (ACTIONS 5, 1, [anon_sym_SLASH_STAR]),
       (ACTIONS 7, 1, [anon_sym_SLASH_SLASH_SLASH]), (ACTIONS 9, 1, [sym__block_comment]),
       (ACTIONS 11, 1, [sym__documentation_block_comment]), (STATE 1268, 2, [sym_comment,
       sym_documentation_comment]), (ACTIONS 2874, 8, [anon_sym_QMARK, anon_sym_LT, anon_sym_GT,
       anon_sym_PIPE, anon_sym_AMP, anon_sym_GT_GT, anon_sym_SLASH, anon_sym_BANG]), (ACTIONS
       2872, 26, [anon_sym_RBRACE, anon_sym_LBRACK, anon_sym_COMMA, anon_sym_RBRACK,
       anon_sym_COLON, anon_sym_LPAREN, anon_sym_RPAREN, anon_sym_QMARK_QMARK,
       sym_equality_operator, anon_sym_LT_EQ, anon_sym_GT_EQ, anon_sym_CARET, anon_sym_LT_LT,
       anon_sym_GT_GT_GT, sym__additive_operator, anon_sym_STAR, anon_sym_PERCENT,
       anon_sym_TILDE_SLASH, anon_sym_is, anon_sym_as, anon_sym_DOT, anon_sym_QMARK_DOT,
       anon_sym_EQ_GT, anon_sym_when, anon_sym_AMP_AMP, anon_sym_PIPE_PIPE])])]"

lemma small_run_460: "small_run 1267 61936 ts_small_parse_table_460 1269 62052"
  by (simp add: small_simps ts_small_parse_table_460_def)

definition ts_small_parse_table_461 :: "small_group list" where
  "ts_small_parse_table_461 = [
     (62052, 11, [(ACTIONS 3, 1, [anon_sym_SLASH_SLASH]), (ACTIONS 5, 1,
       [anon_sym_SLASH_STAR]), (ACTIONS 7, 1, [anon_sym_SLASH_SLASH_SLASH]), (ACTIONS 9, 1,
       [sym__block_comment]), (ACTIONS 11, 1, [sym__documentation_block_comment]), (ACTIONS 1686,
       1, [anon_sym_BANG]), (ACTIONS 2829, 2, [anon_sym_QMARK, anon_sym_LT]), (STATE 1269, 2,
       [sym_comment, sym_documentation_comment]), (ACTIONS 1680, 4, [anon_sym_LBRACK,
       anon_sym_LPAREN, anon_sym_DOT, anon_sym_QMARK_DOT]), (ACTIONS 1699, 5, [anon_sym_GT,
       anon_sym_PIPE, anon_sym_AMP, anon_sym_GT_GT, anon_sym_SLASH]), (ACTIONS 1701, 22,
       [anon_sym_RBRACE, anon_sym_COMMA, anon_sym_RBRACK, anon_sym_COLON, anon_sym_RPAREN,
       anon_sym_QMARK_QMARK, sym_equality_operator, anon_sym_LT_EQ, anon_sym_GT_EQ,
       anon_sym_CARET, anon_sym_LT_LT, anon_sym_GT_GT_GT, sym__additive_operator, anon_sym_STAR,
       anon_sym_PERCENT, anon_sym_TILDE_SLASH, anon_sym_is, anon_sym_as, anon_sym_EQ_GT,
       anon_sym_when, anon_sym_AMP_AMP, anon_sym_PIPE_PIPE])]),
     (62116, 8, [(ACTIONS 3, 1, [anon_sym_SLASH_SLASH]), (ACTIONS 5, 1, [anon_sym_SLASH_STAR]),
       (ACTIONS 7, 1, [anon_sym_SLASH_SLASH_SLASH]), (ACTIONS 9, 1, [sym__block_comment]),
       (ACTIONS 11, 1, [sym__documentation_block_comment]), (STATE 1270, 2, [sym_comment,
       sym_documentation_comment]), (ACTIONS 2914, 8, [anon_sym_QMARK, anon_sym_LT, anon_sym_GT,
       anon_sym_PIPE, anon_sym_AMP, anon_sym_GT_GT, anon_sym_SLASH, anon_sym_BANG]), (ACTIONS
       2912, 26, [anon_sym_RBRACE, anon_sym_LBRACK, anon_sym_COMMA, anon_sym_RBRACK,
       anon_sym_COLON, anon_sym_LPAREN, anon_sym_RPAREN, anon_sym_QMARK_QMARK,
       sym_equality_operator, anon_sym_LT_EQ, anon_sym_GT_EQ, anon_sym_CARET, anon_sym_LT_LT,
       anon_sym_GT_GT_GT, sym__additive_operator, anon_sym_STAR, anon_sym_PERCENT,
       anon_sym_TILDE_SLASH, anon_sym_is, anon_sym_as, anon_sym_DOT, anon_sym_QMARK_DOT,
       anon_sym_EQ_GT, anon_sym_when, anon_sym_AMP_AMP, anon_sym_PIPE_PIPE])])]"

lemma small_run_461: "small_run 1269 62052 ts_small_parse_table_461 1271 62174"
  by (simp add: small_simps ts_small_parse_table_461_def)

definition ts_small_parse_table_462 :: "small_group list" where
  "ts_small_parse_table_462 = [
     (62174, 8, [(ACTIONS 3, 1, [anon_sym_SLASH_SLASH]), (ACTIONS 5, 1, [anon_sym_SLASH_STAR]),
       (ACTIONS 7, 1, [anon_sym_SLASH_SLASH_SLASH]), (ACTIONS 9, 1, [sym__block_comment]),
       (ACTIONS 11, 1, [sym__documentation_block_comment]), (STATE 1271, 2, [sym_comment,
       sym_documentation_comment]), (ACTIONS 2982, 8, [anon_sym_QMARK, anon_sym_LT, anon_sym_GT,
       anon_sym_PIPE, anon_sym_AMP, anon_sym_GT_GT, anon_sym_SLASH, anon_sym_BANG]), (ACTIONS
       2980, 26, [anon_sym_RBRACE, anon_sym_LBRACK, anon_sym_COMMA, anon_sym_RBRACK,
       anon_sym_COLON, anon_sym_LPAREN, anon_sym_RPAREN, anon_sym_QMARK_QMARK,
       sym_equality_operator, anon_sym_LT_EQ, anon_sym_GT_EQ, anon_sym_CARET, anon_sym_LT_LT,
       anon_sym_GT_GT_GT, sym__additive_operator, anon_sym_STAR, anon_sym_PERCENT,
       anon_sym_TILDE_SLASH, anon_sym_is, anon_sym_as, anon_sym_DOT, anon_sym_QMARK_DOT,
       anon_sym_EQ_GT, anon_sym_when, anon_sym_AMP_AMP, anon_sym_PIPE_PIPE])]),
     (62232, 8, [(ACTIONS 3, 1, [anon_sym_SLASH_SLASH]), (ACTIONS 5, 1, [anon_sym_SLASH_STAR]),
       (ACTIONS 7, 1, [anon_sym_SLASH_SLASH_SLASH]), (ACTIONS 9, 1, [sym__block_comment]),
       (ACTIONS 11, 1, [sym__documentation_block_comment]), (STATE 1272, 2, [sym_comment,
       sym_documentation_comment]), (ACTIONS 3092, 8, [anon_sym_QMARK, anon_sym_LT, anon_sym_GT,
       anon_sym_PIPE, anon_sym_AMP, anon_sym_GT_GT, anon_sym_SLASH, anon_sym_BANG]), (ACTIONS
       3090, 26, [anon_sym_RBRACE, anon_sym_LBRACK, anon_sym_COMMA, anon_sym_RBRACK,
       anon_sym_COLON, anon_sym_LPAREN, anon_sym_RPAREN, anon_sym_QMARK_QMARK,
       sym_equality_operator, anon_sym_LT_EQ, anon_sym_GT_EQ, anon_sym_CARET, anon_sym_LT_LT,
       anon_sym_GT_GT_GT, sym__additive_operator, anon_sym_STAR, anon_sym_PERCENT,
       anon_sym_TILDE_SLASH, anon_sym_is, anon_sym_as, anon_sym_DOT, anon_sym_QMARK_DOT,
       anon_sym_EQ_GT, anon_sym_when, anon_sym_AMP_AMP, anon_sym_PIPE_PIPE])]),
     (62290, 8, [(ACTIONS 3, 1, [anon_sym_SLASH_SLASH]), (ACTIONS 5, 1, [anon_sym_SLASH_STAR]),
       (ACTIONS 7, 1, [anon_sym_SLASH_SLASH_SLASH]), (ACTIONS 9, 1, [sym__block_comment]),
       (ACTIONS 11, 1, [sym__documentation_block_comment]), (STATE 1273, 2, [sym_comment,
       sym_documentation_comment]), (ACTIONS 2854, 8, [anon_sym_QMARK, anon_sym_LT, anon_sym_GT,
       anon_sym_PIPE, anon_sym_AMP, anon_sym_GT_GT, anon_sym_SLASH, anon_sym_BANG]), (ACTIONS
       2852, 26, [anon_sym_RBRACE, anon_sym_LBRACK, anon_sym_COMMA, anon_sym_RBRACK,
       anon_sym_COLON, anon_sym_LPAREN, anon_sym_RPAREN, anon_sym_QMARK_QMARK,
       sym_equality_operator, anon_sym_LT_EQ, anon_sym_GT_EQ, anon_sym_CARET, anon_sym_LT_LT,
       anon_sym_GT_GT_GT, sym__additive_operator, anon_sym_STAR, anon_sym_PERCENT,
       anon_sym_TILDE_SLASH, anon_sym_is, anon_sym_as, anon_sym_DOT, anon_sym_QMARK_DOT,
       anon_sym_EQ_GT, anon_sym_when, anon_sym_AMP_AMP, anon_sym_PIPE_PIPE])])]"

lemma small_run_462: "small_run 1271 62174 ts_small_parse_table_462 1274 62348"
  by (simp add: small_simps ts_small_parse_table_462_def)

definition ts_small_parse_table_463 :: "small_group list" where
  "ts_small_parse_table_463 = [
     (62348, 8, [(ACTIONS 3, 1, [anon_sym_SLASH_SLASH]), (ACTIONS 5, 1, [anon_sym_SLASH_STAR]),
       (ACTIONS 7, 1, [anon_sym_SLASH_SLASH_SLASH]), (ACTIONS 9, 1, [sym__block_comment]),
       (ACTIONS 11, 1, [sym__documentation_block_comment]), (STATE 1274, 2, [sym_comment,
       sym_documentation_comment]), (ACTIONS 2850, 8, [anon_sym_QMARK, anon_sym_LT, anon_sym_GT,
       anon_sym_PIPE, anon_sym_AMP, anon_sym_GT_GT, anon_sym_SLASH, anon_sym_BANG]), (ACTIONS
       2848, 26, [anon_sym_RBRACE, anon_sym_LBRACK, anon_sym_COMMA, anon_sym_RBRACK,
       anon_sym_COLON, anon_sym_LPAREN, anon_sym_RPAREN, anon_sym_QMARK_QMARK,
       sym_equality_operator, anon_sym_LT_EQ, anon_sym_GT_EQ, anon_sym_CARET, anon_sym_LT_LT,
       anon_sym_GT_GT_GT, sym__additive_operator, anon_sym_STAR, anon_sym_PERCENT,
       anon_sym_TILDE_SLASH, anon_sym_is, anon_sym_as, anon_sym_DOT, anon_sym_QMARK_DOT,
       anon_sym_EQ_GT, anon_sym_when, anon_sym_AMP_AMP, anon_sym_PIPE_PIPE])]),
     (62406, 8, [(ACTIONS 3, 1, [anon_sym_SLASH_SLASH]), (ACTIONS 5, 1, [anon_sym_SLASH_STAR]),
       (ACTIONS 7, 1, [anon_sym_SLASH_SLASH_SLASH]), (ACTIONS 9, 1, [sym__block_comment]),
       (ACTIONS 11, 1, [sym__documentation_block_comment]), (STATE 1275, 2, [sym_comment,
       sym_documentation_comment]), (ACTIONS 2816, 8, [anon_sym_QMARK, anon_sym_LT, anon_sym_GT,
       anon_sym_PIPE, anon_sym_AMP, anon_sym_GT_GT, anon_sym_SLASH, anon_sym_BANG]), (ACTIONS
       2814, 26, [anon_sym_RBRACE, anon_sym_LBRACK, anon_sym_COMMA, anon_sym_RBRACK,
       anon_sym_COLON, anon_sym_LPAREN, anon_sym_RPAREN, anon_sym_QMARK_QMARK,
       sym_equality_operator, anon_sym_LT_EQ, anon_sym_GT_EQ, anon_sym_CARET, anon_sym_LT_LT,
       anon_sym_GT_GT_GT, sym__additive_operator, anon_sym_STAR, anon_sym_PERCENT,
       anon_sym_TILDE_SLASH, anon_sym_is, anon_sym_as, anon_sym_DOT, anon_sym_QMARK_DOT,
       anon_sym_EQ_GT, anon_sym_when, anon_sym_AMP_AMP, anon_sym_PIPE_PIPE])]),
     (62464, 8, [(ACTIONS 3, 1, [anon_sym_SLASH_SLASH]), (ACTIONS 5, 1, [anon_sym_SLASH_STAR]),
       (ACTIONS 7, 1, [anon_sym_SLASH_SLASH_SLASH]), (ACTIONS 9, 1, [sym__block_comment]),
       (ACTIONS 11, 1, [sym__documentation_block_comment]), (STATE 1276, 2, [sym_comment,
       sym_documentation_comment]), (ACTIONS 2906, 8, [anon_sym_QMARK, anon_sym_LT, anon_sym_GT,
       anon_sym_PIPE, anon_sym_AMP, anon_sym_GT_GT, anon_sym_SLASH, anon_sym_BANG]), (ACTIONS
       2904, 26, [anon_sym_RBRACE, anon_sym_LBRACK, anon_sym_COMMA, anon_sym_RBRACK,
       anon_sym_COLON, anon_sym_LPAREN, anon_sym_RPAREN, anon_sym_QMARK_QMARK,
       sym_equality_operator, anon_sym_LT_EQ, anon_sym_GT_EQ, anon_sym_CARET, anon_sym_LT_LT,
       anon_sym_GT_GT_GT, sym__additive_operator, anon_sym_STAR, anon_sym_PERCENT,
       anon_sym_TILDE_SLASH, anon_sym_is, anon_sym_as, anon_sym_DOT, anon_sym_QMARK_DOT,
       anon_sym_EQ_GT, anon_sym_when, anon_sym_AMP_AMP, anon_sym_PIPE_PIPE])])]"

lemma small_run_463: "small_run 1274 62348 ts_small_parse_table_463 1277 62522"
  by (simp add: small_simps ts_small_parse_table_463_def)

definition ts_small_parse_table_464 :: "small_group list" where
  "ts_small_parse_table_464 = [
     (62522, 8, [(ACTIONS 3, 1, [anon_sym_SLASH_SLASH]), (ACTIONS 5, 1, [anon_sym_SLASH_STAR]),
       (ACTIONS 7, 1, [anon_sym_SLASH_SLASH_SLASH]), (ACTIONS 9, 1, [sym__block_comment]),
       (ACTIONS 11, 1, [sym__documentation_block_comment]), (STATE 1277, 2, [sym_comment,
       sym_documentation_comment]), (ACTIONS 2938, 8, [anon_sym_QMARK, anon_sym_LT, anon_sym_GT,
       anon_sym_PIPE, anon_sym_AMP, anon_sym_GT_GT, anon_sym_SLASH, anon_sym_BANG]), (ACTIONS
       2936, 26, [anon_sym_RBRACE, anon_sym_LBRACK, anon_sym_COMMA, anon_sym_RBRACK,
       anon_sym_COLON, anon_sym_LPAREN, anon_sym_RPAREN, anon_sym_QMARK_QMARK,
       sym_equality_operator, anon_sym_LT_EQ, anon_sym_GT_EQ, anon_sym_CARET, anon_sym_LT_LT,
       anon_sym_GT_GT_GT, sym__additive_operator, anon_sym_STAR, anon_sym_PERCENT,
       anon_sym_TILDE_SLASH, anon_sym_is, anon_sym_as, anon_sym_DOT, anon_sym_QMARK_DOT,
       anon_sym_EQ_GT, anon_sym_when, anon_sym_AMP_AMP, anon_sym_PIPE_PIPE])]),
     (62580, 8, [(ACTIONS 3, 1, [anon_sym_SLASH_SLASH]), (ACTIONS 5, 1, [anon_sym_SLASH_STAR]),
       (ACTIONS 7, 1, [anon_sym_SLASH_SLASH_SLASH]), (ACTIONS 9, 1, [sym__block_comment]),
       (ACTIONS 11, 1, [sym__documentation_block_comment]), (STATE 1278, 2, [sym_comment,
       sym_documentation_comment]), (ACTIONS 1332, 8, [anon_sym_QMARK, anon_sym_LT, anon_sym_GT,
       anon_sym_PIPE, anon_sym_AMP, anon_sym_GT_GT, anon_sym_SLASH, anon_sym_BANG]), (ACTIONS
       1322, 26, [anon_sym_RBRACE, anon_sym_LBRACK, anon_sym_COMMA, anon_sym_RBRACK,
       anon_sym_COLON, anon_sym_LPAREN, anon_sym_RPAREN, anon_sym_QMARK_QMARK,
       sym_equality_operator, anon_sym_LT_EQ, anon_sym_GT_EQ, anon_sym_CARET, anon_sym_LT_LT,
       anon_sym_GT_GT_GT, sym__additive_operator, anon_sym_STAR, anon_sym_PERCENT,
       anon_sym_TILDE_SLASH, anon_sym_is, anon_sym_as, anon_sym_DOT, anon_sym_QMARK_DOT,
       anon_sym_EQ_GT, anon_sym_when, anon_sym_AMP_AMP, anon_sym_PIPE_PIPE])]),
     (62638, 8, [(ACTIONS 3, 1, [anon_sym_SLASH_SLASH]), (ACTIONS 5, 1, [anon_sym_SLASH_STAR]),
       (ACTIONS 7, 1, [anon_sym_SLASH_SLASH_SLASH]), (ACTIONS 9, 1, [sym__block_comment]),
       (ACTIONS 11, 1, [sym__documentation_block_comment]), (STATE 1279, 2, [sym_comment,
       sym_documentation_comment]), (ACTIONS 3068, 8, [anon_sym_QMARK, anon_sym_LT, anon_sym_GT,
       anon_sym_PIPE, anon_sym_AMP, anon_sym_GT_GT, anon_sym_SLASH, anon_sym_BANG]), (ACTIONS
       3066, 26, [anon_sym_RBRACE, anon_sym_LBRACK, anon_sym_COMMA, anon_sym_RBRACK,
       anon_sym_COLON, anon_sym_LPAREN, anon_sym_RPAREN, anon_sym_QMARK_QMARK,
       sym_equality_operator, anon_sym_LT_EQ, anon_sym_GT_EQ, anon_sym_CARET, anon_sym_LT_LT,
       anon_sym_GT_GT_GT, sym__additive_operator, anon_sym_STAR, anon_sym_PERCENT,
       anon_sym_TILDE_SLASH, anon_sym_is, anon_sym_as, anon_sym_DOT, anon_sym_QMARK_DOT,
       anon_sym_EQ_GT, anon_sym_when, anon_sym_AMP_AMP, anon_sym_PIPE_PIPE])])]"

lemma small_run_464: "small_run 1277 62522 ts_small_parse_table_464 1280 62696"
  by (simp add: small_simps ts_small_parse_table_464_def)

definition ts_small_parse_table_465 :: "small_group list" where
  "ts_small_parse_table_465 = [
     (62696, 8, [(ACTIONS 3, 1, [anon_sym_SLASH_SLASH]), (ACTIONS 5, 1, [anon_sym_SLASH_STAR]),
       (ACTIONS 7, 1, [anon_sym_SLASH_SLASH_SLASH]), (ACTIONS 9, 1, [sym__block_comment]),
       (ACTIONS 11, 1, [sym__documentation_block_comment]), (STATE 1280, 2, [sym_comment,
       sym_documentation_comment]), (ACTIONS 2962, 8, [anon_sym_QMARK, anon_sym_LT, anon_sym_GT,
       anon_sym_PIPE, anon_sym_AMP, anon_sym_GT_GT, anon_sym_SLASH, anon_sym_BANG]), (ACTIONS
       2960, 26, [anon_sym_RBRACE, anon_sym_LBRACK, anon_sym_COMMA, anon_sym_RBRACK,
       anon_sym_COLON, anon_sym_LPAREN, anon_sym_RPAREN, anon_sym_QMARK_QMARK,
       sym_equality_operator, anon_sym_LT_EQ, anon_sym_GT_EQ, anon_sym_CARET, anon_sym_LT_LT,
       anon_sym_GT_GT_GT, sym__additive_operator, anon_sym_STAR, anon_sym_PERCENT,
       anon_sym_TILDE_SLASH, anon_sym_is, anon_sym_as, anon_sym_DOT, anon_sym_QMARK_DOT,
       anon_sym_EQ_GT, anon_sym_when, anon_sym_AMP_AMP, anon_sym_PIPE_PIPE])]),
     (62754, 8, [(ACTIONS 3, 1, [anon_sym_SLASH_SLASH]), (ACTIONS 5, 1, [anon_sym_SLASH_STAR]),
       (ACTIONS 7, 1, [anon_sym_SLASH_SLASH_SLASH]), (ACTIONS 9, 1, [sym__block_comment]),
       (ACTIONS 11, 1, [sym__documentation_block_comment]), (STATE 1281, 2, [sym_comment,
       sym_documentation_comment]), (ACTIONS 3088, 8, [anon_sym_QMARK, anon_sym_LT, anon_sym_GT,
       anon_sym_PIPE, anon_sym_AMP, anon_sym_GT_GT, anon_sym_SLASH, anon_sym_BANG]), (ACTIONS
       3086, 26, [anon_sym_RBRACE, anon_sym_LBRACK, anon_sym_COMMA, anon_sym_RBRACK,
       anon_sym_COLON, anon_sym_LPAREN, anon_sym_RPAREN, anon_sym_QMARK_QMARK,
       sym_equality_operator, anon_sym_LT_EQ, anon_sym_GT_EQ, anon_sym_CARET, anon_sym_LT_LT,
       anon_sym_GT_GT_GT, sym__additive_operator, anon_sym_STAR, anon_sym_PERCENT,
       anon_sym_TILDE_SLASH, anon_sym_is, anon_sym_as, anon_sym_DOT, anon_sym_QMARK_DOT,
       anon_sym_EQ_GT, anon_sym_when, anon_sym_AMP_AMP, anon_sym_PIPE_PIPE])]),
     (62812, 8, [(ACTIONS 3, 1, [anon_sym_SLASH_SLASH]), (ACTIONS 5, 1, [anon_sym_SLASH_STAR]),
       (ACTIONS 7, 1, [anon_sym_SLASH_SLASH_SLASH]), (ACTIONS 9, 1, [sym__block_comment]),
       (ACTIONS 11, 1, [sym__documentation_block_comment]), (STATE 1282, 2, [sym_comment,
       sym_documentation_comment]), (ACTIONS 3064, 8, [anon_sym_QMARK, anon_sym_LT, anon_sym_GT,
       anon_sym_PIPE, anon_sym_AMP, anon_sym_GT_GT, anon_sym_SLASH, anon_sym_BANG]), (ACTIONS
       3062, 26, [anon_sym_RBRACE, anon_sym_LBRACK, anon_sym_COMMA, anon_sym_RBRACK,
       anon_sym_COLON, anon_sym_LPAREN, anon_sym_RPAREN, anon_sym_QMARK_QMARK,
       sym_equality_operator, anon_sym_LT_EQ, anon_sym_GT_EQ, anon_sym_CARET, anon_sym_LT_LT,
       anon_sym_GT_GT_GT, sym__additive_operator, anon_sym_STAR, anon_sym_PERCENT,
       anon_sym_TILDE_SLASH, anon_sym_is, anon_sym_as, anon_sym_DOT, anon_sym_QMARK_DOT,
       anon_sym_EQ_GT, anon_sym_when, anon_sym_AMP_AMP, anon_sym_PIPE_PIPE])])]"

lemma small_run_465: "small_run 1280 62696 ts_small_parse_table_465 1283 62870"
  by (simp add: small_simps ts_small_parse_table_465_def)

definition ts_small_parse_table_466 :: "small_group list" where
  "ts_small_parse_table_466 = [
     (62870, 10, [(ACTIONS 3, 1, [anon_sym_SLASH_SLASH]), (ACTIONS 5, 1,
       [anon_sym_SLASH_STAR]), (ACTIONS 7, 1, [anon_sym_SLASH_SLASH_SLASH]), (ACTIONS 9, 1,
       [sym__block_comment]), (ACTIONS 11, 1, [sym__documentation_block_comment]), (ACTIONS 3219,
       2, [anon_sym_QMARK, anon_sym_BANG]), (STATE 1283, 2, [sym_comment,
       sym_documentation_comment]), (ACTIONS 3216, 7, [anon_sym_RBRACE, anon_sym_COMMA,
       anon_sym_RBRACK, anon_sym_RPAREN, anon_sym_as, anon_sym_AMP_AMP, anon_sym_PIPE_PIPE]),
       (ACTIONS 2986, 8, [anon_sym_LT, anon_sym_GT, anon_sym_PIPE, anon_sym_AMP, anon_sym_GT_GT,
       anon_sym_SLASH, anon_sym_DOT, anon_sym_QMARK_DOT]), (ACTIONS 2984, 17, [anon_sym_LBRACK,
       anon_sym_COLON, anon_sym_LPAREN, anon_sym_QMARK_QMARK, sym_equality_operator,
       anon_sym_LT_EQ, anon_sym_GT_EQ, anon_sym_CARET, anon_sym_LT_LT, anon_sym_GT_GT_GT,
       sym__additive_operator, anon_sym_STAR, anon_sym_PERCENT, anon_sym_TILDE_SLASH,
       anon_sym_is, anon_sym_DOT_DOT, anon_sym_QMARK_DOT_DOT])]),
     (62932, 14, [(ACTIONS 3, 1, [anon_sym_SLASH_SLASH]), (ACTIONS 5, 1,
       [anon_sym_SLASH_STAR]), (ACTIONS 7, 1, [anon_sym_SLASH_SLASH_SLASH]), (ACTIONS 9, 1,
       [sym__block_comment]), (ACTIONS 11, 1, [sym__documentation_block_comment]), (ACTIONS 3222,
       1, [anon_sym_LPAREN]), (ACTIONS 3224, 1, [anon_sym_QMARK]), (ACTIONS 3228, 1,
       [anon_sym_LT]), (STATE 1305, 1, [sym_type_parameters]), (STATE 1311, 1,
       [sym_nullable_type]), (STATE 1369, 1, [sym_parameter_type_list]), (STATE 1284, 2,
       [sym_comment, sym_documentation_comment]), (ACTIONS 2395, 4, [anon_sym_GT, anon_sym_PIPE,
       anon_sym_AMP, anon_sym_GT_GT]), (ACTIONS 2380, 24, [anon_sym_RBRACE, anon_sym_COMMA,
       anon_sym_RBRACK, anon_sym_COLON, anon_sym_RPAREN, anon_sym_QMARK_QMARK,
       sym_equality_operator, anon_sym_LT_EQ, anon_sym_GT_EQ, anon_sym_CARET, anon_sym_LT_LT,
       anon_sym_GT_GT_GT, sym__additive_operator, anon_sym_is, anon_sym_as, anon_sym_DOT_DOT,
       anon_sym_QMARK_DOT_DOT, anon_sym_SEMI, anon_sym_EQ_GT, anon_sym_case, anon_sym_else,
       anon_sym_Function, anon_sym_AMP_AMP, anon_sym_PIPE_PIPE])])]"

lemma small_run_466: "small_run 1283 62870 ts_small_parse_table_466 1285 63002"
  by (simp add: small_simps ts_small_parse_table_466_def)

definition ts_small_parse_table_467 :: "small_group list" where
  "ts_small_parse_table_467 = [
     (63002, 8, [(ACTIONS 3, 1, [anon_sym_SLASH_SLASH]), (ACTIONS 5, 1, [anon_sym_SLASH_STAR]),
       (ACTIONS 7, 1, [anon_sym_SLASH_SLASH_SLASH]), (ACTIONS 9, 1, [sym__block_comment]),
       (ACTIONS 11, 1, [sym__documentation_block_comment]), (STATE 1285, 2, [sym_comment,
       sym_documentation_comment]), (ACTIONS 3014, 8, [anon_sym_QMARK, anon_sym_LT, anon_sym_GT,
       anon_sym_PIPE, anon_sym_AMP, anon_sym_GT_GT, anon_sym_SLASH, anon_sym_BANG]), (ACTIONS
       3012, 26, [anon_sym_RBRACE, anon_sym_LBRACK, anon_sym_COMMA, anon_sym_RBRACK,
       anon_sym_COLON, anon_sym_LPAREN, anon_sym_RPAREN, anon_sym_QMARK_QMARK,
       sym_equality_operator, anon_sym_LT_EQ, anon_sym_GT_EQ, anon_sym_CARET, anon_sym_LT_LT,
       anon_sym_GT_GT_GT, sym__additive_operator, anon_sym_STAR, anon_sym_PERCENT,
       anon_sym_TILDE_SLASH, anon_sym_is, anon_sym_as, anon_sym_DOT, anon_sym_QMARK_DOT,
       anon_sym_EQ_GT, anon_sym_when, anon_sym_AMP_AMP, anon_sym_PIPE_PIPE])]),
     (63060, 8, [(ACTIONS 3, 1, [anon_sym_SLASH_SLASH]), (ACTIONS 5, 1, [anon_sym_SLASH_STAR]),
       (ACTIONS 7, 1, [anon_sym_SLASH_SLASH_SLASH]), (ACTIONS 9, 1, [sym__block_comment]),
       (ACTIONS 11, 1, [sym__documentation_block_comment]), (STATE 1286, 2, [sym_comment,
       sym_documentation_comment]), (ACTIONS 2986, 8, [anon_sym_QMARK, anon_sym_LT, anon_sym_GT,
       anon_sym_PIPE, anon_sym_AMP, anon_sym_GT_GT, anon_sym_SLASH, anon_sym_BANG]), (ACTIONS
       2984, 26, [anon_sym_RBRACE, anon_sym_LBRACK, anon_sym_COMMA, anon_sym_RBRACK,
       anon_sym_COLON, anon_sym_LPAREN, anon_sym_RPAREN, anon_sym_QMARK_QMARK,
       sym_equality_operator, anon_sym_LT_EQ, anon_sym_GT_EQ, anon_sym_CARET, anon_sym_LT_LT,
       anon_sym_GT_GT_GT, sym__additive_operator, anon_sym_STAR, anon_sym_PERCENT,
       anon_sym_TILDE_SLASH, anon_sym_is, anon_sym_as, anon_sym_DOT, anon_sym_QMARK_DOT,
       anon_sym_EQ_GT, anon_sym_when, anon_sym_AMP_AMP, anon_sym_PIPE_PIPE])]),
     (63118, 8, [(ACTIONS 3, 1, [anon_sym_SLASH_SLASH]), (ACTIONS 5, 1, [anon_sym_SLASH_STAR]),
       (ACTIONS 7, 1, [anon_sym_SLASH_SLASH_SLASH]), (ACTIONS 9, 1, [sym__block_comment]),
       (ACTIONS 11, 1, [sym__documentation_block_comment]), (STATE 1287, 2, [sym_comment,
       sym_documentation_comment]), (ACTIONS 2970, 8, [anon_sym_QMARK, anon_sym_LT, anon_sym_GT,
       anon_sym_PIPE, anon_sym_AMP, anon_sym_GT_GT, anon_sym_SLASH, anon_sym_BANG]), (ACTIONS
       2968, 26, [anon_sym_RBRACE, anon_sym_LBRACK, anon_sym_COMMA, anon_sym_RBRACK,
       anon_sym_COLON, anon_sym_LPAREN, anon_sym_RPAREN, anon_sym_QMARK_QMARK,
       sym_equality_operator, anon_sym_LT_EQ, anon_sym_GT_EQ, anon_sym_CARET, anon_sym_LT_LT,
       anon_sym_GT_GT_GT, sym__additive_operator, anon_sym_STAR, anon_sym_PERCENT,
       anon_sym_TILDE_SLASH, anon_sym_is, anon_sym_as, anon_sym_DOT, anon_sym_QMARK_DOT,
       anon_sym_EQ_GT, anon_sym_when, anon_sym_AMP_AMP, anon_sym_PIPE_PIPE])])]"

lemma small_run_467: "small_run 1285 63002 ts_small_parse_table_467 1288 63176"
  by (simp add: small_simps ts_small_parse_table_467_def)

definition ts_small_parse_table_468 :: "small_group list" where
  "ts_small_parse_table_468 = [
     (63176, 8, [(ACTIONS 3, 1, [anon_sym_SLASH_SLASH]), (ACTIONS 5, 1, [anon_sym_SLASH_STAR]),
       (ACTIONS 7, 1, [anon_sym_SLASH_SLASH_SLASH]), (ACTIONS 9, 1, [sym__block_comment]),
       (ACTIONS 11, 1, [sym__documentation_block_comment]), (STATE 1288, 2, [sym_comment,
       sym_documentation_comment]), (ACTIONS 3060, 8, [anon_sym_QMARK, anon_sym_LT, anon_sym_GT,
       anon_sym_PIPE, anon_sym_AMP, anon_sym_GT_GT, anon_sym_SLASH, anon_sym_BANG]), (ACTIONS
       3058, 26, [anon_sym_RBRACE, anon_sym_LBRACK, anon_sym_COMMA, anon_sym_RBRACK,
       anon_sym_COLON, anon_sym_LPAREN, anon_sym_RPAREN, anon_sym_QMARK_QMARK,
       sym_equality_operator, anon_sym_LT_EQ, anon_sym_GT_EQ, anon_sym_CARET, anon_sym_LT_LT,
       anon_sym_GT_GT_GT, sym__additive_operator, anon_sym_STAR, anon_sym_PERCENT,
       anon_sym_TILDE_SLASH, anon_sym_is, anon_sym_as, anon_sym_DOT, anon_sym_QMARK_DOT,
       anon_sym_EQ_GT, anon_sym_when, anon_sym_AMP_AMP, anon_sym_PIPE_PIPE])]),
     (63234, 8, [(ACTIONS 3, 1, [anon_sym_SLASH_SLASH]), (ACTIONS 5, 1, [anon_sym_SLASH_STAR]),
       (ACTIONS 7, 1, [anon_sym_SLASH_SLASH_SLASH]), (ACTIONS 9, 1, [sym__block_comment]),
       (ACTIONS 11, 1, [sym__documentation_block_comment]), (STATE 1289, 2, [sym_comment,
       sym_documentation_comment]), (ACTIONS 2878, 8, [anon_sym_QMARK, anon_sym_LT, anon_sym_GT,
       anon_sym_PIPE, anon_sym_AMP, anon_sym_GT_GT, anon_sym_SLASH, anon_sym_BANG]), (ACTIONS
       2876, 26, [anon_sym_RBRACE, anon_sym_LBRACK, anon_sym_COMMA, anon_sym_RBRACK,
       anon_sym_COLON, anon_sym_LPAREN, anon_sym_RPAREN, anon_sym_QMARK_QMARK,
       sym_equality_operator, anon_sym_LT_EQ, anon_sym_GT_EQ, anon_sym_CARET, anon_sym_LT_LT,
       anon_sym_GT_GT_GT, sym__additive_operator, anon_sym_STAR, anon_sym_PERCENT,
       anon_sym_TILDE_SLASH, anon_sym_is, anon_sym_as, anon_sym_DOT, anon_sym_QMARK_DOT,
       anon_sym_EQ_GT, anon_sym_when, anon_sym_AMP_AMP, anon_sym_PIPE_PIPE])]),
     (63292, 8, [(ACTIONS 3, 1, [anon_sym_SLASH_SLASH]), (ACTIONS 5, 1, [anon_sym_SLASH_STAR]),
       (ACTIONS 7, 1, [anon_sym_SLASH_SLASH_SLASH]), (ACTIONS 9, 1, [sym__block_comment]),
       (ACTIONS 11, 1, [sym__documentation_block_comment]), (STATE 1290, 2, [sym_comment,
       sym_documentation_comment]), (ACTIONS 3056, 8, [anon_sym_QMARK, anon_sym_LT, anon_sym_GT,
       anon_sym_PIPE, anon_sym_AMP, anon_sym_GT_GT, anon_sym_SLASH, anon_sym_BANG]), (ACTIONS
       3054, 26, [anon_sym_RBRACE, anon_sym_LBRACK, anon_sym_COMMA, anon_sym_RBRACK,
       anon_sym_COLON, anon_sym_LPAREN, anon_sym_RPAREN, anon_sym_QMARK_QMARK,
       sym_equality_operator, anon_sym_LT_EQ, anon_sym_GT_EQ, anon_sym_CARET, anon_sym_LT_LT,
       anon_sym_GT_GT_GT, sym__additive_operator, anon_sym_STAR, anon_sym_PERCENT,
       anon_sym_TILDE_SLASH, anon_sym_is, anon_sym_as, anon_sym_DOT, anon_sym_QMARK_DOT,
       anon_sym_EQ_GT, anon_sym_when, anon_sym_AMP_AMP, anon_sym_PIPE_PIPE])])]"

lemma small_run_468: "small_run 1288 63176 ts_small_parse_table_468 1291 63350"
  by (simp add: small_simps ts_small_parse_table_468_def)

definition ts_small_parse_table_469 :: "small_group list" where
  "ts_small_parse_table_469 = [
     (63350, 8, [(ACTIONS 3, 1, [anon_sym_SLASH_SLASH]), (ACTIONS 5, 1, [anon_sym_SLASH_STAR]),
       (ACTIONS 7, 1, [anon_sym_SLASH_SLASH_SLASH]), (ACTIONS 9, 1, [sym__block_comment]),
       (ACTIONS 11, 1, [sym__documentation_block_comment]), (STATE 1291, 2, [sym_comment,
       sym_documentation_comment]), (ACTIONS 2882, 8, [anon_sym_QMARK, anon_sym_LT, anon_sym_GT,
       anon_sym_PIPE, anon_sym_AMP, anon_sym_GT_GT, anon_sym_SLASH, anon_sym_BANG]), (ACTIONS
       2880, 26, [anon_sym_RBRACE, anon_sym_LBRACK, anon_sym_COMMA, anon_sym_RBRACK,
       anon_sym_COLON, anon_sym_LPAREN, anon_sym_RPAREN, anon_sym_QMARK_QMARK,
       sym_equality_operator, anon_sym_LT_EQ, anon_sym_GT_EQ, anon_sym_CARET, anon_sym_LT_LT,
       anon_sym_GT_GT_GT, sym__additive_operator, anon_sym_STAR, anon_sym_PERCENT,
       anon_sym_TILDE_SLASH, anon_sym_is, anon_sym_as, anon_sym_DOT, anon_sym_QMARK_DOT,
       anon_sym_EQ_GT, anon_sym_when, anon_sym_AMP_AMP, anon_sym_PIPE_PIPE])]),
     (63408, 8, [(ACTIONS 3, 1, [anon_sym_SLASH_SLASH]), (ACTIONS 5, 1, [anon_sym_SLASH_STAR]),
       (ACTIONS 7, 1, [anon_sym_SLASH_SLASH_SLASH]), (ACTIONS 9, 1, [sym__block_comment]),
       (ACTIONS 11, 1, [sym__documentation_block_comment]), (STATE 1292, 2, [sym_comment,
       sym_documentation_comment]), (ACTIONS 2930, 8, [anon_sym_QMARK, anon_sym_LT, anon_sym_GT,
       anon_sym_PIPE, anon_sym_AMP, anon_sym_GT_GT, anon_sym_SLASH, anon_sym_BANG]), (ACTIONS
       2928, 26, [anon_sym_RBRACE, anon_sym_LBRACK, anon_sym_COMMA, anon_sym_RBRACK,
       anon_sym_COLON, anon_sym_LPAREN, anon_sym_RPAREN, anon_sym_QMARK_QMARK,
       sym_equality_operator, anon_sym_LT_EQ, anon_sym_GT_EQ, anon_sym_CARET, anon_sym_LT_LT,
       anon_sym_GT_GT_GT, sym__additive_operator, anon_sym_STAR, anon_sym_PERCENT,
       anon_sym_TILDE_SLASH, anon_sym_is, anon_sym_as, anon_sym_DOT, anon_sym_QMARK_DOT,
       anon_sym_EQ_GT, anon_sym_when, anon_sym_AMP_AMP, anon_sym_PIPE_PIPE])])]"

lemma small_run_469: "small_run 1291 63350 ts_small_parse_table_469 1293 63466"
  by (simp add: small_simps ts_small_parse_table_469_def)

definition ts_small_parse_table_470 :: "small_group list" where
  "ts_small_parse_table_470 = [
     (63466, 14, [(ACTIONS 3, 1, [anon_sym_SLASH_SLASH]), (ACTIONS 5, 1,
       [anon_sym_SLASH_STAR]), (ACTIONS 7, 1, [anon_sym_SLASH_SLASH_SLASH]), (ACTIONS 9, 1,
       [sym__block_comment]), (ACTIONS 11, 1, [sym__documentation_block_comment]), (ACTIONS 3222,
       1, [anon_sym_LPAREN]), (ACTIONS 3232, 1, [anon_sym_QMARK]), (ACTIONS 3235, 1,
       [anon_sym_LT]), (STATE 1305, 1, [sym_type_parameters]), (STATE 1319, 1,
       [sym_nullable_type]), (STATE 1369, 1, [sym_parameter_type_list]), (STATE 1293, 2,
       [sym_comment, sym_documentation_comment]), (ACTIONS 2460, 4, [anon_sym_GT, anon_sym_PIPE,
       anon_sym_AMP, anon_sym_GT_GT]), (ACTIONS 2449, 24, [anon_sym_RBRACE, anon_sym_COMMA,
       anon_sym_RBRACK, anon_sym_COLON, anon_sym_RPAREN, anon_sym_QMARK_QMARK,
       sym_equality_operator, anon_sym_LT_EQ, anon_sym_GT_EQ, anon_sym_CARET, anon_sym_LT_LT,
       anon_sym_GT_GT_GT, sym__additive_operator, anon_sym_is, anon_sym_as, anon_sym_DOT_DOT,
       anon_sym_QMARK_DOT_DOT, anon_sym_SEMI, anon_sym_EQ_GT, anon_sym_case, anon_sym_else,
       anon_sym_Function, anon_sym_AMP_AMP, anon_sym_PIPE_PIPE])]),
     (63536, 8, [(ACTIONS 3, 1, [anon_sym_SLASH_SLASH]), (ACTIONS 5, 1, [anon_sym_SLASH_STAR]),
       (ACTIONS 7, 1, [anon_sym_SLASH_SLASH_SLASH]), (ACTIONS 9, 1, [sym__block_comment]),
       (ACTIONS 11, 1, [sym__documentation_block_comment]), (STATE 1294, 2, [sym_comment,
       sym_documentation_comment]), (ACTIONS 3052, 8, [anon_sym_QMARK, anon_sym_LT, anon_sym_GT,
       anon_sym_PIPE, anon_sym_AMP, anon_sym_GT_GT, anon_sym_SLASH, anon_sym_BANG]), (ACTIONS
       3050, 26, [anon_sym_RBRACE, anon_sym_LBRACK, anon_sym_COMMA, anon_sym_RBRACK,
       anon_sym_COLON, anon_sym_LPAREN, anon_sym_RPAREN, anon_sym_QMARK_QMARK,
       sym_equality_operator, anon_sym_LT_EQ, anon_sym_GT_EQ, anon_sym_CARET, anon_sym_LT_LT,
       anon_sym_GT_GT_GT, sym__additive_operator, anon_sym_STAR, anon_sym_PERCENT,
       anon_sym_TILDE_SLASH, anon_sym_is, anon_sym_as, anon_sym_DOT, anon_sym_QMARK_DOT,
       anon_sym_EQ_GT, anon_sym_when, anon_sym_AMP_AMP, anon_sym_PIPE_PIPE])])]"

lemma small_run_470: "small_run 1293 63466 ts_small_parse_table_470 1295 63594"
  by (simp add: small_simps ts_small_parse_table_470_def)

definition ts_small_parse_table_471 :: "small_group list" where
  "ts_small_parse_table_471 = [
     (63594, 8, [(ACTIONS 3, 1, [anon_sym_SLASH_SLASH]), (ACTIONS 5, 1, [anon_sym_SLASH_STAR]),
       (ACTIONS 7, 1, [anon_sym_SLASH_SLASH_SLASH]), (ACTIONS 9, 1, [sym__block_comment]),
       (ACTIONS 11, 1, [sym__documentation_block_comment]), (STATE 1295, 2, [sym_comment,
       sym_documentation_comment]), (ACTIONS 3048, 8, [anon_sym_QMARK, anon_sym_LT, anon_sym_GT,
       anon_sym_PIPE, anon_sym_AMP, anon_sym_GT_GT, anon_sym_SLASH, anon_sym_BANG]), (ACTIONS
       3046, 26, [anon_sym_RBRACE, anon_sym_LBRACK, anon_sym_COMMA, anon_sym_RBRACK,
       anon_sym_COLON, anon_sym_LPAREN, anon_sym_RPAREN, anon_sym_QMARK_QMARK,
       sym_equality_operator, anon_sym_LT_EQ, anon_sym_GT_EQ, anon_sym_CARET, anon_sym_LT_LT,
       anon_sym_GT_GT_GT, sym__additive_operator, anon_sym_STAR, anon_sym_PERCENT,
       anon_sym_TILDE_SLASH, anon_sym_is, anon_sym_as, anon_sym_DOT, anon_sym_QMARK_DOT,
       anon_sym_EQ_GT, anon_sym_when, anon_sym_AMP_AMP, anon_sym_PIPE_PIPE])]),
     (63652, 8, [(ACTIONS 3, 1, [anon_sym_SLASH_SLASH]), (ACTIONS 5, 1, [anon_sym_SLASH_STAR]),
       (ACTIONS 7, 1, [anon_sym_SLASH_SLASH_SLASH]), (ACTIONS 9, 1, [sym__block_comment]),
       (ACTIONS 11, 1, [sym__documentation_block_comment]), (STATE 1296, 2, [sym_comment,
       sym_documentation_comment]), (ACTIONS 2958, 8, [anon_sym_QMARK, anon_sym_LT, anon_sym_GT,
       anon_sym_PIPE, anon_sym_AMP, anon_sym_GT_GT, anon_sym_SLASH, anon_sym_BANG]), (ACTIONS
       2956, 26, [anon_sym_RBRACE, anon_sym_LBRACK, anon_sym_COMMA, anon_sym_RBRACK,
       anon_sym_COLON, anon_sym_LPAREN, anon_sym_RPAREN, anon_sym_QMARK_QMARK,
       sym_equality_operator, anon_sym_LT_EQ, anon_sym_GT_EQ, anon_sym_CARET, anon_sym_LT_LT,
       anon_sym_GT_GT_GT, sym__additive_operator, anon_sym_STAR, anon_sym_PERCENT,
       anon_sym_TILDE_SLASH, anon_sym_is, anon_sym_as, anon_sym_DOT, anon_sym_QMARK_DOT,
       anon_sym_EQ_GT, anon_sym_when, anon_sym_AMP_AMP, anon_sym_PIPE_PIPE])])]"

lemma small_run_471: "small_run 1295 63594 ts_small_parse_table_471 1297 63710"
  by (simp add: small_simps ts_small_parse_table_471_def)

definition ts_small_parse_table_472 :: "small_group list" where
  "ts_small_parse_table_472 = [
     (63710, 10, [(ACTIONS 3, 1, [anon_sym_SLASH_SLASH]), (ACTIONS 5, 1,
       [anon_sym_SLASH_STAR]), (ACTIONS 7, 1, [anon_sym_SLASH_SLASH_SLASH]), (ACTIONS 9, 1,
       [sym__block_comment]), (ACTIONS 11, 1, [sym__documentation_block_comment]), (ACTIONS 3241,
       2, [anon_sym_QMARK, anon_sym_BANG]), (STATE 1297, 2, [sym_comment,
       sym_documentation_comment]), (ACTIONS 3238, 7, [anon_sym_RBRACE, anon_sym_COMMA,
       anon_sym_RBRACK, anon_sym_RPAREN, anon_sym_as, anon_sym_AMP_AMP, anon_sym_PIPE_PIPE]),
       (ACTIONS 2878, 8, [anon_sym_LT, anon_sym_GT, anon_sym_PIPE, anon_sym_AMP, anon_sym_GT_GT,
       anon_sym_SLASH, anon_sym_DOT, anon_sym_QMARK_DOT]), (ACTIONS 2876, 17, [anon_sym_LBRACK,
       anon_sym_COLON, anon_sym_LPAREN, anon_sym_QMARK_QMARK, sym_equality_operator,
       anon_sym_LT_EQ, anon_sym_GT_EQ, anon_sym_CARET, anon_sym_LT_LT, anon_sym_GT_GT_GT,
       sym__additive_operator, anon_sym_STAR, anon_sym_PERCENT, anon_sym_TILDE_SLASH,
       anon_sym_is, anon_sym_DOT_DOT, anon_sym_QMARK_DOT_DOT])]),
     (63772, 8, [(ACTIONS 3, 1, [anon_sym_SLASH_SLASH]), (ACTIONS 5, 1, [anon_sym_SLASH_STAR]),
       (ACTIONS 7, 1, [anon_sym_SLASH_SLASH_SLASH]), (ACTIONS 9, 1, [sym__block_comment]),
       (ACTIONS 11, 1, [sym__documentation_block_comment]), (STATE 1298, 2, [sym_comment,
       sym_documentation_comment]), (ACTIONS 2966, 8, [anon_sym_QMARK, anon_sym_LT, anon_sym_GT,
       anon_sym_PIPE, anon_sym_AMP, anon_sym_GT_GT, anon_sym_SLASH, anon_sym_BANG]), (ACTIONS
       2964, 26, [anon_sym_RBRACE, anon_sym_LBRACK, anon_sym_COMMA, anon_sym_RBRACK,
       anon_sym_COLON, anon_sym_LPAREN, anon_sym_RPAREN, anon_sym_QMARK_QMARK,
       sym_equality_operator, anon_sym_LT_EQ, anon_sym_GT_EQ, anon_sym_CARET, anon_sym_LT_LT,
       anon_sym_GT_GT_GT, sym__additive_operator, anon_sym_STAR, anon_sym_PERCENT,
       anon_sym_TILDE_SLASH, anon_sym_is, anon_sym_as, anon_sym_DOT, anon_sym_QMARK_DOT,
       anon_sym_EQ_GT, anon_sym_when, anon_sym_AMP_AMP, anon_sym_PIPE_PIPE])])]"

lemma small_run_472: "small_run 1297 63710 ts_small_parse_table_472 1299 63830"
  by (simp add: small_simps ts_small_parse_table_472_def)

definition ts_small_parse_table_473 :: "small_group list" where
  "ts_small_parse_table_473 = [
     (63830, 10, [(ACTIONS 3, 1, [anon_sym_SLASH_SLASH]), (ACTIONS 5, 1,
       [anon_sym_SLASH_STAR]), (ACTIONS 7, 1, [anon_sym_SLASH_SLASH_SLASH]), (ACTIONS 9, 1,
       [sym__block_comment]), (ACTIONS 11, 1, [sym__documentation_block_comment]), (ACTIONS 3247,
       2, [anon_sym_QMARK, anon_sym_BANG]), (STATE 1299, 2, [sym_comment,
       sym_documentation_comment]), (ACTIONS 3244, 7, [anon_sym_RBRACE, anon_sym_COMMA,
       anon_sym_RBRACK, anon_sym_RPAREN, anon_sym_as, anon_sym_AMP_AMP, anon_sym_PIPE_PIPE]),
       (ACTIONS 2914, 8, [anon_sym_LT, anon_sym_GT, anon_sym_PIPE, anon_sym_AMP, anon_sym_GT_GT,
       anon_sym_SLASH, anon_sym_DOT, anon_sym_QMARK_DOT]), (ACTIONS 2912, 17, [anon_sym_LBRACK,
       anon_sym_COLON, anon_sym_LPAREN, anon_sym_QMARK_QMARK, sym_equality_operator,
       anon_sym_LT_EQ, anon_sym_GT_EQ, anon_sym_CARET, anon_sym_LT_LT, anon_sym_GT_GT_GT,
       sym__additive_operator, anon_sym_STAR, anon_sym_PERCENT, anon_sym_TILDE_SLASH,
       anon_sym_is, anon_sym_DOT_DOT, anon_sym_QMARK_DOT_DOT])]),
     (63892, 10, [(ACTIONS 3, 1, [anon_sym_SLASH_SLASH]), (ACTIONS 5, 1,
       [anon_sym_SLASH_STAR]), (ACTIONS 7, 1, [anon_sym_SLASH_SLASH_SLASH]), (ACTIONS 9, 1,
       [sym__block_comment]), (ACTIONS 11, 1, [sym__documentation_block_comment]), (ACTIONS 3253,
       2, [anon_sym_QMARK, anon_sym_BANG]), (STATE 1300, 2, [sym_comment,
       sym_documentation_comment]), (ACTIONS 3250, 7, [anon_sym_RBRACE, anon_sym_COMMA,
       anon_sym_RBRACK, anon_sym_RPAREN, anon_sym_as, anon_sym_AMP_AMP, anon_sym_PIPE_PIPE]),
       (ACTIONS 2982, 8, [anon_sym_LT, anon_sym_GT, anon_sym_PIPE, anon_sym_AMP, anon_sym_GT_GT,
       anon_sym_SLASH, anon_sym_DOT, anon_sym_QMARK_DOT]), (ACTIONS 2980, 17, [anon_sym_LBRACK,
       anon_sym_COLON, anon_sym_LPAREN, anon_sym_QMARK_QMARK, sym_equality_operator,
       anon_sym_LT_EQ, anon_sym_GT_EQ, anon_sym_CARET, anon_sym_LT_LT, anon_sym_GT_GT_GT,
       sym__additive_operator, anon_sym_STAR, anon_sym_PERCENT, anon_sym_TILDE_SLASH,
       anon_sym_is, anon_sym_DOT_DOT, anon_sym_QMARK_DOT_DOT])])]"

lemma small_run_473: "small_run 1299 63830 ts_small_parse_table_473 1301 63954"
  by (simp add: small_simps ts_small_parse_table_473_def)

definition ts_small_parse_table_474 :: "small_group list" where
  "ts_small_parse_table_474 = [
     (63954, 8, [(ACTIONS 3, 1, [anon_sym_SLASH_SLASH]), (ACTIONS 5, 1, [anon_sym_SLASH_STAR]),
       (ACTIONS 7, 1, [anon_sym_SLASH_SLASH_SLASH]), (ACTIONS 9, 1, [sym__block_comment]),
       (ACTIONS 11, 1, [sym__documentation_block_comment]), (STATE 1301, 2, [sym_comment,
       sym_documentation_comment]), (ACTIONS 2031, 7, [anon_sym_QMARK, anon_sym_LT, anon_sym_GT,
       anon_sym_PIPE, anon_sym_AMP, anon_sym_GT_GT, anon_sym_SLASH]), (ACTIONS 2017, 26,
       [anon_sym_RBRACE, anon_sym_COMMA, anon_sym_RBRACK, anon_sym_COLON, anon_sym_RPAREN,
       anon_sym_QMARK_QMARK, sym_equality_operator, anon_sym_LT_EQ, anon_sym_GT_EQ,
       anon_sym_CARET, anon_sym_LT_LT, anon_sym_GT_GT_GT, sym__additive_operator, anon_sym_STAR,
       anon_sym_PERCENT, anon_sym_TILDE_SLASH, anon_sym_is, anon_sym_as, anon_sym_DOT_DOT,
       anon_sym_QMARK_DOT_DOT, anon_sym_SEMI, anon_sym_EQ_GT, anon_sym_case, anon_sym_else,
       anon_sym_AMP_AMP, anon_sym_PIPE_PIPE])]),
     (64011, 8, [(ACTIONS 3, 1, [anon_sym_SLASH_SLASH]), (ACTIONS 5, 1, [anon_sym_SLASH_STAR]),
       (ACTIONS 7, 1, [anon_sym_SLASH_SLASH_SLASH]), (ACTIONS 9, 1, [sym__block_comment]),
       (ACTIONS 11, 1, [sym__documentation_block_comment]), (STATE 1302, 2, [sym_comment,
       sym_documentation_comment]), (ACTIONS 3076, 7, [anon_sym_QMARK, anon_sym_LT, anon_sym_GT,
       anon_sym_PIPE, anon_sym_AMP, anon_sym_GT_GT, anon_sym_SLASH]), (ACTIONS 3074, 26,
       [anon_sym_RBRACE, anon_sym_COMMA, anon_sym_RBRACK, anon_sym_COLON, anon_sym_RPAREN,
       anon_sym_QMARK_QMARK, sym_equality_operator, anon_sym_LT_EQ, anon_sym_GT_EQ,
       anon_sym_CARET, anon_sym_LT_LT, anon_sym_GT_GT_GT, sym__additive_operator, anon_sym_STAR,
       anon_sym_PERCENT, anon_sym_TILDE_SLASH, anon_sym_is, anon_sym_as, anon_sym_DOT_DOT,
       anon_sym_QMARK_DOT_DOT, anon_sym_SEMI, anon_sym_EQ_GT, anon_sym_case, anon_sym_else,
       anon_sym_AMP_AMP, anon_sym_PIPE_PIPE])]),
     (64068, 8, [(ACTIONS 3, 1, [anon_sym_SLASH_SLASH]), (ACTIONS 5, 1, [anon_sym_SLASH_STAR]),
       (ACTIONS 7, 1, [anon_sym_SLASH_SLASH_SLASH]), (ACTIONS 9, 1, [sym__block_comment]),
       (ACTIONS 11, 1, [sym__documentation_block_comment]), (STATE 1303, 2, [sym_comment,
       sym_documentation_comment]), (ACTIONS 3080, 7, [anon_sym_QMARK, anon_sym_LT, anon_sym_GT,
       anon_sym_PIPE, anon_sym_AMP, anon_sym_GT_GT, anon_sym_SLASH]), (ACTIONS 3078, 26,
       [anon_sym_RBRACE, anon_sym_COMMA, anon_sym_RBRACK, anon_sym_COLON, anon_sym_RPAREN,
       anon_sym_QMARK_QMARK, sym_equality_operator, anon_sym_LT_EQ, anon_sym_GT_EQ,
       anon_sym_CARET, anon_sym_LT_LT, anon_sym_GT_GT_GT, sym__additive_operator, anon_sym_STAR,
       anon_sym_PERCENT, anon_sym_TILDE_SLASH, anon_sym_is, anon_sym_as, anon_sym_DOT_DOT,
       anon_sym_QMARK_DOT_DOT, anon_sym_SEMI, anon_sym_EQ_GT, anon_sym_case, anon_sym_else,
       anon_sym_AMP_AMP, anon_sym_PIPE_PIPE])])]"

lemma small_run_474: "small_run 1301 63954 ts_small_parse_table_474 1304 64125"
  by (simp add: small_simps ts_small_parse_table_474_def)

definition ts_small_parse_table_475 :: "small_group list" where
  "ts_small_parse_table_475 = [
     (64125, 10, [(ACTIONS 3, 1, [anon_sym_SLASH_SLASH]), (ACTIONS 5, 1,
       [anon_sym_SLASH_STAR]), (ACTIONS 7, 1, [anon_sym_SLASH_SLASH_SLASH]), (ACTIONS 9, 1,
       [sym__block_comment]), (ACTIONS 11, 1, [sym__documentation_block_comment]), (ACTIONS 982,
       1, [anon_sym_EQ]), (ACTIONS 975, 2, [anon_sym_while, anon_sym_else]), (STATE 1304, 2,
       [sym_comment, sym_documentation_comment]), (ACTIONS 984, 10, [anon_sym_QMARK, anon_sym_LT,
       anon_sym_GT, anon_sym_PIPE, anon_sym_AMP, anon_sym_GT_GT, anon_sym_SLASH, anon_sym_BANG,
       anon_sym_DOT, anon_sym_QMARK_DOT]), (ACTIONS 980, 20, [anon_sym_LBRACK, anon_sym_LPAREN,
       anon_sym_QMARK_QMARK, sym_equality_operator, anon_sym_LT_EQ, anon_sym_GT_EQ,
       anon_sym_CARET, anon_sym_LT_LT, anon_sym_GT_GT_GT, sym__additive_operator, anon_sym_STAR,
       anon_sym_PERCENT, anon_sym_TILDE_SLASH, anon_sym_is, anon_sym_as, anon_sym_DOT_DOT,
       anon_sym_QMARK_DOT_DOT, anon_sym_SEMI, anon_sym_AMP_AMP, anon_sym_PIPE_PIPE])]),
     (64186, 12, [(ACTIONS 3, 1, [anon_sym_SLASH_SLASH]), (ACTIONS 5, 1,
       [anon_sym_SLASH_STAR]), (ACTIONS 7, 1, [anon_sym_SLASH_SLASH_SLASH]), (ACTIONS 9, 1,
       [sym__block_comment]), (ACTIONS 11, 1, [sym__documentation_block_comment]), (ACTIONS 3222,
       1, [anon_sym_LPAREN]), (ACTIONS 3256, 1, [anon_sym_QMARK]), (STATE 1320, 1,
       [sym_nullable_type]), (STATE 1375, 1, [sym_parameter_type_list]), (STATE 1305, 2,
       [sym_comment, sym_documentation_comment]), (ACTIONS 2515, 5, [anon_sym_LT, anon_sym_GT,
       anon_sym_PIPE, anon_sym_AMP, anon_sym_GT_GT]), (ACTIONS 2507, 24, [anon_sym_RBRACE,
       anon_sym_COMMA, anon_sym_RBRACK, anon_sym_COLON, anon_sym_RPAREN, anon_sym_QMARK_QMARK,
       sym_equality_operator, anon_sym_LT_EQ, anon_sym_GT_EQ, anon_sym_CARET, anon_sym_LT_LT,
       anon_sym_GT_GT_GT, sym__additive_operator, anon_sym_is, anon_sym_as, anon_sym_DOT_DOT,
       anon_sym_QMARK_DOT_DOT, anon_sym_SEMI, anon_sym_EQ_GT, anon_sym_case, anon_sym_else,
       anon_sym_Function, anon_sym_AMP_AMP, anon_sym_PIPE_PIPE])])]"

lemma small_run_475: "small_run 1304 64125 ts_small_parse_table_475 1306 64251"
  by (simp add: small_simps ts_small_parse_table_475_def)

definition ts_small_parse_table_476 :: "small_group list" where
  "ts_small_parse_table_476 = [
     (64251, 12, [(ACTIONS 3, 1, [anon_sym_SLASH_SLASH]), (ACTIONS 5, 1,
       [anon_sym_SLASH_STAR]), (ACTIONS 7, 1, [anon_sym_SLASH_SLASH_SLASH]), (ACTIONS 9, 1,
       [sym__block_comment]), (ACTIONS 11, 1, [sym__documentation_block_comment]), (ACTIONS 3259,
       1, [anon_sym_Function]), (STATE 1293, 1, [sym__function_builtin_identifier]), (STATE 1312,
       1, [aux_sym__function_type_tails]), (STATE 1449, 1, [sym__function_type_tail]), (STATE
       1306, 2, [sym_comment, sym_documentation_comment]), (ACTIONS 2415, 6, [anon_sym_QMARK,
       anon_sym_LT, anon_sym_GT, anon_sym_PIPE, anon_sym_AMP, anon_sym_GT_GT]), (ACTIONS 2413,
       23, [anon_sym_RBRACE, anon_sym_COMMA, anon_sym_RBRACK, anon_sym_COLON, anon_sym_RPAREN,
       anon_sym_QMARK_QMARK, sym_equality_operator, anon_sym_LT_EQ, anon_sym_GT_EQ,
       anon_sym_CARET, anon_sym_LT_LT, anon_sym_GT_GT_GT, sym__additive_operator, anon_sym_is,
       anon_sym_as, anon_sym_DOT_DOT, anon_sym_QMARK_DOT_DOT, anon_sym_SEMI, anon_sym_EQ_GT,
       anon_sym_case, anon_sym_else, anon_sym_AMP_AMP, anon_sym_PIPE_PIPE])]),
     (64316, 8, [(ACTIONS 3, 1, [anon_sym_SLASH_SLASH]), (ACTIONS 5, 1, [anon_sym_SLASH_STAR]),
       (ACTIONS 7, 1, [anon_sym_SLASH_SLASH_SLASH]), (ACTIONS 9, 1, [sym__block_comment]),
       (ACTIONS 11, 1, [sym__documentation_block_comment]), (STATE 1307, 2, [sym_comment,
       sym_documentation_comment]), (ACTIONS 1674, 7, [anon_sym_QMARK, anon_sym_LT, anon_sym_GT,
       anon_sym_PIPE, anon_sym_AMP, anon_sym_GT_GT, anon_sym_SLASH]), (ACTIONS 1676, 26,
       [anon_sym_RBRACE, anon_sym_COMMA, anon_sym_RBRACK, anon_sym_COLON, anon_sym_RPAREN,
       anon_sym_QMARK_QMARK, sym_equality_operator, anon_sym_LT_EQ, anon_sym_GT_EQ,
       anon_sym_CARET, anon_sym_LT_LT, anon_sym_GT_GT_GT, sym__additive_operator, anon_sym_STAR,
       anon_sym_PERCENT, anon_sym_TILDE_SLASH, anon_sym_is, anon_sym_as, anon_sym_DOT_DOT,
       anon_sym_QMARK_DOT_DOT, anon_sym_SEMI, anon_sym_EQ_GT, anon_sym_case, anon_sym_else,
       anon_sym_AMP_AMP, anon_sym_PIPE_PIPE])])]"

lemma small_run_476: "small_run 1306 64251 ts_small_parse_table_476 1308 64373"
  by (simp add: small_simps ts_small_parse_table_476_def)

definition ts_small_parse_table_477 :: "small_group list" where
  "ts_small_parse_table_477 = [
     (64373, 11, [(ACTIONS 3, 1, [anon_sym_SLASH_SLASH]), (ACTIONS 5, 1,
       [anon_sym_SLASH_STAR]), (ACTIONS 7, 1, [anon_sym_SLASH_SLASH_SLASH]), (ACTIONS 9, 1,
       [sym__block_comment]), (ACTIONS 11, 1, [sym__documentation_block_comment]), (ACTIONS 143,
       1, [anon_sym_AT]), (STATE 1314, 1, [aux_sym__metadata_repeat1]), (STATE 1361, 1,
       [sym_annotation]), (ACTIONS 3263, 2, [anon_sym_LPAREN, anon_sym_QMARK]), (STATE 1308, 2,
       [sym_comment, sym_documentation_comment]), (ACTIONS 3261, 28, [anon_sym_part,
       anon_sym_enum, anon_sym_final, anon_sym_inline, anon_sym_class, anon_sym_extension,
       sym_void_type, anon_sym_var, anon_sym_covariant, anon_sym_factory, anon_sym_Function,
       anon_sym_get, anon_sym_interface, anon_sym_base, anon_sym_abstract, anon_sym_sealed,
       anon_sym_operator, anon_sym_mixin, anon_sym_required, anon_sym_set, anon_sym_static,
       anon_sym_typedef, sym_const_builtin, anon_sym_late, anon_sym_external, anon_sym_this,
       anon_sym_super, sym_identifier])]),
     (64436, 8, [(ACTIONS 3, 1, [anon_sym_SLASH_SLASH]), (ACTIONS 5, 1, [anon_sym_SLASH_STAR]),
       (ACTIONS 7, 1, [anon_sym_SLASH_SLASH_SLASH]), (ACTIONS 9, 1, [sym__block_comment]),
       (ACTIONS 11, 1, [sym__documentation_block_comment]), (STATE 1309, 2, [sym_comment,
       sym_documentation_comment]), (ACTIONS 3267, 5, [anon_sym_LPAREN, anon_sym_QMARK,
       anon_sym_LT, anon_sym_DOT, anon_sym_AT]), (ACTIONS 3265, 28, [anon_sym_part,
       anon_sym_enum, anon_sym_final, anon_sym_inline, anon_sym_class, anon_sym_extension,
       sym_void_type, anon_sym_var, anon_sym_covariant, anon_sym_factory, anon_sym_Function,
       anon_sym_get, anon_sym_interface, anon_sym_base, anon_sym_abstract, anon_sym_sealed,
       anon_sym_operator, anon_sym_mixin, anon_sym_required, anon_sym_set, anon_sym_static,
       anon_sym_typedef, sym_const_builtin, anon_sym_late, anon_sym_external, anon_sym_this,
       anon_sym_super, sym_identifier])])]"

lemma small_run_477: "small_run 1308 64373 ts_small_parse_table_477 1310 64493"
  by (simp add: small_simps ts_small_parse_table_477_def)

definition ts_small_parse_table_478 :: "small_group list" where
  "ts_small_parse_table_478 = [
     (64493, 12, [(ACTIONS 3, 1, [anon_sym_SLASH_SLASH]), (ACTIONS 5, 1,
       [anon_sym_SLASH_STAR]), (ACTIONS 7, 1, [anon_sym_SLASH_SLASH_SLASH]), (ACTIONS 9, 1,
       [sym__block_comment]), (ACTIONS 11, 1, [sym__documentation_block_comment]), (ACTIONS 3259,
       1, [anon_sym_Function]), (STATE 1293, 1, [sym__function_builtin_identifier]), (STATE 1312,
       1, [aux_sym__function_type_tails]), (STATE 1449, 1, [sym__function_type_tail]), (STATE
       1310, 2, [sym_comment, sym_documentation_comment]), (ACTIONS 2437, 6, [anon_sym_QMARK,
       anon_sym_LT, anon_sym_GT, anon_sym_PIPE, anon_sym_AMP, anon_sym_GT_GT]), (ACTIONS 2435,
       23, [anon_sym_RBRACE, anon_sym_COMMA, anon_sym_RBRACK, anon_sym_COLON, anon_sym_RPAREN,
       anon_sym_QMARK_QMARK, sym_equality_operator, anon_sym_LT_EQ, anon_sym_GT_EQ,
       anon_sym_CARET, anon_sym_LT_LT, anon_sym_GT_GT_GT, sym__additive_operator, anon_sym_is,
       anon_sym_as, anon_sym_DOT_DOT, anon_sym_QMARK_DOT_DOT, anon_sym_SEMI, anon_sym_EQ_GT,
       anon_sym_case, anon_sym_else, anon_sym_AMP_AMP, anon_sym_PIPE_PIPE])]),
     (64558, 12, [(ACTIONS 3, 1, [anon_sym_SLASH_SLASH]), (ACTIONS 5, 1,
       [anon_sym_SLASH_STAR]), (ACTIONS 7, 1, [anon_sym_SLASH_SLASH_SLASH]), (ACTIONS 9, 1,
       [sym__block_comment]), (ACTIONS 11, 1, [sym__documentation_block_comment]), (ACTIONS 3222,
       1, [anon_sym_LPAREN]), (ACTIONS 3269, 1, [anon_sym_QMARK]), (STATE 1375, 1,
       [sym_parameter_type_list]), (STATE 1430, 1, [sym_nullable_type]), (STATE 1311, 2,
       [sym_comment, sym_documentation_comment]), (ACTIONS 2528, 5, [anon_sym_LT, anon_sym_GT,
       anon_sym_PIPE, anon_sym_AMP, anon_sym_GT_GT]), (ACTIONS 2517, 24, [anon_sym_RBRACE,
       anon_sym_COMMA, anon_sym_RBRACK, anon_sym_COLON, anon_sym_RPAREN, anon_sym_QMARK_QMARK,
       sym_equality_operator, anon_sym_LT_EQ, anon_sym_GT_EQ, anon_sym_CARET, anon_sym_LT_LT,
       anon_sym_GT_GT_GT, sym__additive_operator, anon_sym_is, anon_sym_as, anon_sym_DOT_DOT,
       anon_sym_QMARK_DOT_DOT, anon_sym_SEMI, anon_sym_EQ_GT, anon_sym_case, anon_sym_else,
       anon_sym_Function, anon_sym_AMP_AMP, anon_sym_PIPE_PIPE])])]"

lemma small_run_478: "small_run 1310 64493 ts_small_parse_table_478 1312 64623"
  by (simp add: small_simps ts_small_parse_table_478_def)

definition ts_small_parse_table_479 :: "small_group list" where
  "ts_small_parse_table_479 = [
     (64623, 11, [(ACTIONS 3, 1, [anon_sym_SLASH_SLASH]), (ACTIONS 5, 1,
       [anon_sym_SLASH_STAR]), (ACTIONS 7, 1, [anon_sym_SLASH_SLASH_SLASH]), (ACTIONS 9, 1,
       [sym__block_comment]), (ACTIONS 11, 1, [sym__documentation_block_comment]), (ACTIONS 3273,
       1, [anon_sym_Function]), (STATE 1293, 1, [sym__function_builtin_identifier]), (STATE 1449,
       1, [sym__function_type_tail]), (STATE 1312, 3, [aux_sym__function_type_tails, sym_comment,
       sym_documentation_comment]), (ACTIONS 2444, 6, [anon_sym_QMARK, anon_sym_LT, anon_sym_GT,
       anon_sym_PIPE, anon_sym_AMP, anon_sym_GT_GT]), (ACTIONS 2442, 23, [anon_sym_RBRACE,
       anon_sym_COMMA, anon_sym_RBRACK, anon_sym_COLON, anon_sym_RPAREN, anon_sym_QMARK_QMARK,
       sym_equality_operator, anon_sym_LT_EQ, anon_sym_GT_EQ, anon_sym_CARET, anon_sym_LT_LT,
       anon_sym_GT_GT_GT, sym__additive_operator, anon_sym_is, anon_sym_as, anon_sym_DOT_DOT,
       anon_sym_QMARK_DOT_DOT, anon_sym_SEMI, anon_sym_EQ_GT, anon_sym_case, anon_sym_else,
       anon_sym_AMP_AMP, anon_sym_PIPE_PIPE])]),
     (64686, 8, [(ACTIONS 3, 1, [anon_sym_SLASH_SLASH]), (ACTIONS 5, 1, [anon_sym_SLASH_STAR]),
       (ACTIONS 7, 1, [anon_sym_SLASH_SLASH_SLASH]), (ACTIONS 9, 1, [sym__block_comment]),
       (ACTIONS 11, 1, [sym__documentation_block_comment]), (STATE 1313, 2, [sym_comment,
       sym_documentation_comment]), (ACTIONS 2499, 7, [anon_sym_QMARK, anon_sym_LT, anon_sym_GT,
       anon_sym_PIPE, anon_sym_AMP, anon_sym_GT_GT, anon_sym_SLASH]), (ACTIONS 2497, 26,
       [anon_sym_RBRACE, anon_sym_COMMA, anon_sym_RBRACK, anon_sym_COLON, anon_sym_RPAREN,
       anon_sym_QMARK_QMARK, sym_equality_operator, anon_sym_LT_EQ, anon_sym_GT_EQ,
       anon_sym_CARET, anon_sym_LT_LT, anon_sym_GT_GT_GT, sym__additive_operator, anon_sym_STAR,
       anon_sym_PERCENT, anon_sym_TILDE_SLASH, anon_sym_is, anon_sym_as, anon_sym_DOT_DOT,
       anon_sym_QMARK_DOT_DOT, anon_sym_SEMI, anon_sym_EQ_GT, anon_sym_case, anon_sym_else,
       anon_sym_AMP_AMP, anon_sym_PIPE_PIPE])])]"

lemma small_run_479: "small_run 1312 64623 ts_small_parse_table_479 1314 64743"
  by (simp add: small_simps ts_small_parse_table_479_def)

definition ts_small_parse_table_480 :: "small_group list" where
  "ts_small_parse_table_480 = [
     (64743, 10, [(ACTIONS 3, 1, [anon_sym_SLASH_SLASH]), (ACTIONS 5, 1,
       [anon_sym_SLASH_STAR]), (ACTIONS 7, 1, [anon_sym_SLASH_SLASH_SLASH]), (ACTIONS 9, 1,
       [sym__block_comment]), (ACTIONS 11, 1, [sym__documentation_block_comment]), (ACTIONS 3280,
       1, [anon_sym_AT]), (STATE 1361, 1, [sym_annotation]), (ACTIONS 3278, 2, [anon_sym_LPAREN,
       anon_sym_QMARK]), (STATE 1314, 3, [sym_comment, sym_documentation_comment,
       aux_sym__metadata_repeat1]), (ACTIONS 3276, 28, [anon_sym_part, anon_sym_enum,
       anon_sym_final, anon_sym_inline, anon_sym_class, anon_sym_extension, sym_void_type,
       anon_sym_var, anon_sym_covariant, anon_sym_factory, anon_sym_Function, anon_sym_get,
       anon_sym_interface, anon_sym_base, anon_sym_abstract, anon_sym_sealed, anon_sym_operator,
       anon_sym_mixin, anon_sym_required, anon_sym_set, anon_sym_static, anon_sym_typedef,
       sym_const_builtin, anon_sym_late, anon_sym_external, anon_sym_this, anon_sym_super,
       sym_identifier])]),
     (64804, 8, [(ACTIONS 3, 1, [anon_sym_SLASH_SLASH]), (ACTIONS 5, 1, [anon_sym_SLASH_STAR]),
       (ACTIONS 7, 1, [anon_sym_SLASH_SLASH_SLASH]), (ACTIONS 9, 1, [sym__block_comment]),
       (ACTIONS 11, 1, [sym__documentation_block_comment]), (STATE 1315, 2, [sym_comment,
       sym_documentation_comment]), (ACTIONS 3022, 7, [anon_sym_QMARK, anon_sym_LT, anon_sym_GT,
       anon_sym_PIPE, anon_sym_AMP, anon_sym_GT_GT, anon_sym_SLASH]), (ACTIONS 3020, 26,
       [anon_sym_RBRACE, anon_sym_COMMA, anon_sym_RBRACK, anon_sym_COLON, anon_sym_RPAREN,
       anon_sym_QMARK_QMARK, sym_equality_operator, anon_sym_LT_EQ, anon_sym_GT_EQ,
       anon_sym_CARET, anon_sym_LT_LT, anon_sym_GT_GT_GT, sym__additive_operator, anon_sym_STAR,
       anon_sym_PERCENT, anon_sym_TILDE_SLASH, anon_sym_is, anon_sym_as, anon_sym_DOT_DOT,
       anon_sym_QMARK_DOT_DOT, anon_sym_SEMI, anon_sym_EQ_GT, anon_sym_case, anon_sym_else,
       anon_sym_AMP_AMP, anon_sym_PIPE_PIPE])]),
     (64861, 8, [(ACTIONS 3, 1, [anon_sym_SLASH_SLASH]), (ACTIONS 5, 1, [anon_sym_SLASH_STAR]),
       (ACTIONS 7, 1, [anon_sym_SLASH_SLASH_SLASH]), (ACTIONS 9, 1, [sym__block_comment]),
       (ACTIONS 11, 1, [sym__documentation_block_comment]), (STATE 1316, 2, [sym_comment,
       sym_documentation_comment]), (ACTIONS 3018, 7, [anon_sym_QMARK, anon_sym_LT, anon_sym_GT,
       anon_sym_PIPE, anon_sym_AMP, anon_sym_GT_GT, anon_sym_SLASH]), (ACTIONS 3016, 26,
       [anon_sym_RBRACE, anon_sym_COMMA, anon_sym_RBRACK, anon_sym_COLON, anon_sym_RPAREN,
       anon_sym_QMARK_QMARK, sym_equality_operator, anon_sym_LT_EQ, anon_sym_GT_EQ,
       anon_sym_CARET, anon_sym_LT_LT, anon_sym_GT_GT_GT, sym__additive_operator, anon_sym_STAR,
       anon_sym_PERCENT, anon_sym_TILDE_SLASH, anon_sym_is, anon_sym_as, anon_sym_DOT_DOT,
       anon_sym_QMARK_DOT_DOT, anon_sym_SEMI, anon_sym_EQ_GT, anon_sym_case, anon_sym_else,
       anon_sym_AMP_AMP, anon_sym_PIPE_PIPE])])]"

lemma small_run_480: "small_run 1314 64743 ts_small_parse_table_480 1317 64918"
  by (simp add: small_simps ts_small_parse_table_480_def)

definition ts_small_parse_table_481 :: "small_group list" where
  "ts_small_parse_table_481 = [
     (64918, 8, [(ACTIONS 3, 1, [anon_sym_SLASH_SLASH]), (ACTIONS 5, 1, [anon_sym_SLASH_STAR]),
       (ACTIONS 7, 1, [anon_sym_SLASH_SLASH_SLASH]), (ACTIONS 9, 1, [sym__block_comment]),
       (ACTIONS 11, 1, [sym__documentation_block_comment]), (STATE 1317, 2, [sym_comment,
       sym_documentation_comment]), (ACTIONS 2130, 7, [anon_sym_QMARK, anon_sym_LT, anon_sym_GT,
       anon_sym_PIPE, anon_sym_AMP, anon_sym_GT_GT, anon_sym_SLASH]), (ACTIONS 2128, 26,
       [anon_sym_RBRACE, anon_sym_COMMA, anon_sym_RBRACK, anon_sym_COLON, anon_sym_RPAREN,
       anon_sym_QMARK_QMARK, sym_equality_operator, anon_sym_LT_EQ, anon_sym_GT_EQ,
       anon_sym_CARET, anon_sym_LT_LT, anon_sym_GT_GT_GT, sym__additive_operator, anon_sym_STAR,
       anon_sym_PERCENT, anon_sym_TILDE_SLASH, anon_sym_is, anon_sym_as, anon_sym_DOT_DOT,
       anon_sym_QMARK_DOT_DOT, anon_sym_SEMI, anon_sym_EQ_GT, anon_sym_case, anon_sym_else,
       anon_sym_AMP_AMP, anon_sym_PIPE_PIPE])]),
     (64975, 8, [(ACTIONS 3, 1, [anon_sym_SLASH_SLASH]), (ACTIONS 5, 1, [anon_sym_SLASH_STAR]),
       (ACTIONS 7, 1, [anon_sym_SLASH_SLASH_SLASH]), (ACTIONS 9, 1, [sym__block_comment]),
       (ACTIONS 11, 1, [sym__documentation_block_comment]), (STATE 1318, 2, [sym_comment,
       sym_documentation_comment]), (ACTIONS 2926, 7, [anon_sym_QMARK, anon_sym_LT, anon_sym_GT,
       anon_sym_PIPE, anon_sym_AMP, anon_sym_GT_GT, anon_sym_SLASH]), (ACTIONS 2924, 26,
       [anon_sym_RBRACE, anon_sym_COMMA, anon_sym_RBRACK, anon_sym_COLON, anon_sym_RPAREN,
       anon_sym_QMARK_QMARK, sym_equality_operator, anon_sym_LT_EQ, anon_sym_GT_EQ,
       anon_sym_CARET, anon_sym_LT_LT, anon_sym_GT_GT_GT, sym__additive_operator, anon_sym_STAR,
       anon_sym_PERCENT, anon_sym_TILDE_SLASH, anon_sym_is, anon_sym_as, anon_sym_DOT_DOT,
       anon_sym_QMARK_DOT_DOT, anon_sym_SEMI, anon_sym_EQ_GT, anon_sym_case, anon_sym_else,
       anon_sym_AMP_AMP, anon_sym_PIPE_PIPE])])]"

lemma small_run_481: "small_run 1317 64918 ts_small_parse_table_481 1319 65032"
  by (simp add: small_simps ts_small_parse_table_481_def)

definition ts_small_parse_table_482 :: "small_group list" where
  "ts_small_parse_table_482 = [
     (65032, 12, [(ACTIONS 3, 1, [anon_sym_SLASH_SLASH]), (ACTIONS 5, 1,
       [anon_sym_SLASH_STAR]), (ACTIONS 7, 1, [anon_sym_SLASH_SLASH_SLASH]), (ACTIONS 9, 1,
       [sym__block_comment]), (ACTIONS 11, 1, [sym__documentation_block_comment]), (ACTIONS 3222,
       1, [anon_sym_LPAREN]), (ACTIONS 3256, 1, [anon_sym_QMARK]), (STATE 1375, 1,
       [sym_parameter_type_list]), (STATE 1430, 1, [sym_nullable_type]), (STATE 1319, 2,
       [sym_comment, sym_documentation_comment]), (ACTIONS 2515, 5, [anon_sym_LT, anon_sym_GT,
       anon_sym_PIPE, anon_sym_AMP, anon_sym_GT_GT]), (ACTIONS 2507, 24, [anon_sym_RBRACE,
       anon_sym_COMMA, anon_sym_RBRACK, anon_sym_COLON, anon_sym_RPAREN, anon_sym_QMARK_QMARK,
       sym_equality_operator, anon_sym_LT_EQ, anon_sym_GT_EQ, anon_sym_CARET, anon_sym_LT_LT,
       anon_sym_GT_GT_GT, sym__additive_operator, anon_sym_is, anon_sym_as, anon_sym_DOT_DOT,
       anon_sym_QMARK_DOT_DOT, anon_sym_SEMI, anon_sym_EQ_GT, anon_sym_case, anon_sym_else,
       anon_sym_Function, anon_sym_AMP_AMP, anon_sym_PIPE_PIPE])]),
     (65097, 12, [(ACTIONS 3, 1, [anon_sym_SLASH_SLASH]), (ACTIONS 5, 1,
       [anon_sym_SLASH_STAR]), (ACTIONS 7, 1, [anon_sym_SLASH_SLASH_SLASH]), (ACTIONS 9, 1,
       [sym__block_comment]), (ACTIONS 11, 1, [sym__documentation_block_comment]), (ACTIONS 3222,
       1, [anon_sym_LPAREN]), (ACTIONS 3283, 1, [anon_sym_QMARK]), (STATE 1368, 1,
       [sym_parameter_type_list]), (STATE 1439, 1, [sym_nullable_type]), (STATE 1320, 2,
       [sym_comment, sym_documentation_comment]), (ACTIONS 2487, 5, [anon_sym_LT, anon_sym_GT,
       anon_sym_PIPE, anon_sym_AMP, anon_sym_GT_GT]), (ACTIONS 2479, 24, [anon_sym_RBRACE,
       anon_sym_COMMA, anon_sym_RBRACK, anon_sym_COLON, anon_sym_RPAREN, anon_sym_QMARK_QMARK,
       sym_equality_operator, anon_sym_LT_EQ, anon_sym_GT_EQ, anon_sym_CARET, anon_sym_LT_LT,
       anon_sym_GT_GT_GT, sym__additive_operator, anon_sym_is, anon_sym_as, anon_sym_DOT_DOT,
       anon_sym_QMARK_DOT_DOT, anon_sym_SEMI, anon_sym_EQ_GT, anon_sym_case, anon_sym_else,
       anon_sym_Function, anon_sym_AMP_AMP, anon_sym_PIPE_PIPE])])]"

lemma small_run_482: "small_run 1319 65032 ts_small_parse_table_482 1321 65162"
  by (simp add: small_simps ts_small_parse_table_482_def)

definition ts_small_parse_table_483 :: "small_group list" where
  "ts_small_parse_table_483 = [
     (65162, 12, [(ACTIONS 3, 1, [anon_sym_SLASH_SLASH]), (ACTIONS 5, 1,
       [anon_sym_SLASH_STAR]), (ACTIONS 7, 1, [anon_sym_SLASH_SLASH_SLASH]), (ACTIONS 9, 1,
       [sym__block_comment]), (ACTIONS 11, 1, [sym__documentation_block_comment]), (ACTIONS 2504,
       1, [anon_sym_SLASH]), (STATE 420, 1, [sym_multiplicative_operator]), (STATE 1416, 1,
       [sym__multiplicative_operator]), (ACTIONS 2501, 3, [anon_sym_STAR, anon_sym_PERCENT,
       anon_sym_TILDE_SLASH]), (STATE 1321, 3, [sym_comment, sym_documentation_comment,
       aux_sym_multiplicative_expression_repeat1]), (ACTIONS 2499, 6, [anon_sym_QMARK,
       anon_sym_LT, anon_sym_GT, anon_sym_PIPE, anon_sym_AMP, anon_sym_GT_GT]), (ACTIONS 2497,
       19, [anon_sym_RBRACE, anon_sym_COMMA, anon_sym_RBRACK, anon_sym_COLON, anon_sym_RPAREN,
       anon_sym_QMARK_QMARK, sym_equality_operator, anon_sym_LT_EQ, anon_sym_GT_EQ,
       anon_sym_CARET, anon_sym_LT_LT, anon_sym_GT_GT_GT, sym__additive_operator, anon_sym_is,
       anon_sym_as, anon_sym_EQ_GT, anon_sym_when, anon_sym_AMP_AMP, anon_sym_PIPE_PIPE])]),
     (65226, 33, [(ACTIONS 3, 1, [anon_sym_SLASH_SLASH]), (ACTIONS 5, 1,
       [anon_sym_SLASH_STAR]), (ACTIONS 7, 1, [anon_sym_SLASH_SLASH_SLASH]), (ACTIONS 9, 1,
       [sym__block_comment]), (ACTIONS 11, 1, [sym__documentation_block_comment]), (ACTIONS 1273,
       1, [anon_sym_GT_GT]), (ACTIONS 1275, 1, [sym__additive_operator]), (ACTIONS 2042, 1,
       [anon_sym_LBRACK]), (ACTIONS 2068, 1, [sym_equality_operator]), (ACTIONS 2072, 1,
       [anon_sym_CARET]), (ACTIONS 2477, 1, [anon_sym_SLASH]), (ACTIONS 3286, 1,
       [anon_sym_PIPE]), (ACTIONS 3288, 1, [anon_sym_AMP]), (ACTIONS 3290, 1, [anon_sym_DOT]),
       (STATE 320, 1, [sym_relational_operator]), (STATE 327, 1, [sym_shift_operator]), (STATE
       328, 1, [sym_additive_operator]), (STATE 424, 1, [sym_multiplicative_operator]), (STATE
       836, 1, [sym_index_selector]), (STATE 871, 1, [sym_unconditional_assignable_selector]),
       (STATE 1177, 1, [aux_sym_multiplicative_expression_repeat1]), (STATE 1334, 1,
       [aux_sym_shift_expression_repeat1]), (STATE 1386, 1,
       [aux_sym_additive_expression_repeat1]), (STATE 1397, 1, [sym__shift_operator]), (STATE
       1405, 1, [aux_sym_bitwise_or_expression_repeat1]), (STATE 1408, 1,
       [aux_sym_bitwise_xor_expression_repeat1]), (STATE 1409, 1,
       [aux_sym_bitwise_and_expression_repeat1]), (STATE 1416, 1,
       [sym__multiplicative_operator]), (ACTIONS 400, 2, [anon_sym_LT, anon_sym_GT]), (ACTIONS
       402, 2, [anon_sym_LT_EQ, anon_sym_GT_EQ]), (ACTIONS 1271, 2, [anon_sym_LT_LT,
       anon_sym_GT_GT_GT]), (STATE 1322, 2, [sym_comment, sym_documentation_comment]), (ACTIONS
       2475, 3, [anon_sym_STAR, anon_sym_PERCENT, anon_sym_TILDE_SLASH])])]"

lemma small_run_483: "small_run 1321 65162 ts_small_parse_table_483 1323 65332"
  by (simp add: small_simps ts_small_parse_table_483_def)

definition ts_small_parse_table_484 :: "small_group list" where
  "ts_small_parse_table_484 = [
     (65332, 13, [(ACTIONS 3, 1, [anon_sym_SLASH_SLASH]), (ACTIONS 5, 1,
       [anon_sym_SLASH_STAR]), (ACTIONS 7, 1, [anon_sym_SLASH_SLASH_SLASH]), (ACTIONS 9, 1,
       [sym__block_comment]), (ACTIONS 11, 1, [sym__documentation_block_comment]), (ACTIONS 2477,
       1, [anon_sym_SLASH]), (STATE 427, 1, [sym_multiplicative_operator]), (STATE 1333, 1,
       [aux_sym_multiplicative_expression_repeat1]), (STATE 1416, 1,
       [sym__multiplicative_operator]), (STATE 1323, 2, [sym_comment,
       sym_documentation_comment]), (ACTIONS 2475, 3, [anon_sym_STAR, anon_sym_PERCENT,
       anon_sym_TILDE_SLASH]), (ACTIONS 2473, 9, [anon_sym_QMARK, anon_sym_LT, anon_sym_GT,
       anon_sym_PIPE, anon_sym_AMP, anon_sym_GT_GT, anon_sym_BANG, anon_sym_DOT,
       anon_sym_QMARK_DOT]), (ACTIONS 2471, 16, [anon_sym_LBRACK, anon_sym_LPAREN,
       anon_sym_QMARK_QMARK, sym_equality_operator, anon_sym_LT_EQ, anon_sym_GT_EQ,
       anon_sym_CARET, anon_sym_LT_LT, anon_sym_GT_GT_GT, sym__additive_operator, anon_sym_is,
       anon_sym_as, anon_sym_DOT_DOT, anon_sym_QMARK_DOT_DOT, anon_sym_AMP_AMP,
       anon_sym_PIPE_PIPE])]),
     (65398, 33, [(ACTIONS 3, 1, [anon_sym_SLASH_SLASH]), (ACTIONS 5, 1,
       [anon_sym_SLASH_STAR]), (ACTIONS 7, 1, [anon_sym_SLASH_SLASH_SLASH]), (ACTIONS 9, 1,
       [sym__block_comment]), (ACTIONS 11, 1, [sym__documentation_block_comment]), (ACTIONS 1273,
       1, [anon_sym_GT_GT]), (ACTIONS 1275, 1, [sym__additive_operator]), (ACTIONS 1999, 1,
       [anon_sym_LBRACK]), (ACTIONS 2068, 1, [sym_equality_operator]), (ACTIONS 2072, 1,
       [anon_sym_CARET]), (ACTIONS 2477, 1, [anon_sym_SLASH]), (ACTIONS 3286, 1,
       [anon_sym_PIPE]), (ACTIONS 3288, 1, [anon_sym_AMP]), (ACTIONS 3292, 1, [anon_sym_DOT]),
       (STATE 320, 1, [sym_relational_operator]), (STATE 327, 1, [sym_shift_operator]), (STATE
       328, 1, [sym_additive_operator]), (STATE 424, 1, [sym_multiplicative_operator]), (STATE
       552, 1, [sym_index_selector]), (STATE 568, 1, [sym_unconditional_assignable_selector]),
       (STATE 1177, 1, [aux_sym_multiplicative_expression_repeat1]), (STATE 1334, 1,
       [aux_sym_shift_expression_repeat1]), (STATE 1386, 1,
       [aux_sym_additive_expression_repeat1]), (STATE 1397, 1, [sym__shift_operator]), (STATE
       1405, 1, [aux_sym_bitwise_or_expression_repeat1]), (STATE 1408, 1,
       [aux_sym_bitwise_xor_expression_repeat1]), (STATE 1409, 1,
       [aux_sym_bitwise_and_expression_repeat1]), (STATE 1416, 1,
       [sym__multiplicative_operator]), (ACTIONS 400, 2, [anon_sym_LT, anon_sym_GT]), (ACTIONS
       402, 2, [anon_sym_LT_EQ, anon_sym_GT_EQ]), (ACTIONS 1271, 2, [anon_sym_LT_LT,
       anon_sym_GT_GT_GT]), (STATE 1324, 2, [sym_comment, sym_documentation_comment]), (ACTIONS
       2475, 3, [anon_sym_STAR, anon_sym_PERCENT, anon_sym_TILDE_SLASH])])]"

lemma small_run_484: "small_run 1323 65332 ts_small_parse_table_484 1325 65504"
  by (simp add: small_simps ts_small_parse_table_484_def)

definition ts_small_parse_table_485 :: "small_group list" where
  "ts_small_parse_table_485 = [
     (65504, 12, [(ACTIONS 3, 1, [anon_sym_SLASH_SLASH]), (ACTIONS 5, 1,
       [anon_sym_SLASH_STAR]), (ACTIONS 7, 1, [anon_sym_SLASH_SLASH_SLASH]), (ACTIONS 9, 1,
       [sym__block_comment]), (ACTIONS 11, 1, [sym__documentation_block_comment]), (ACTIONS 3294,
       1, [anon_sym_QMARK]), (ACTIONS 3297, 1, [anon_sym_LT]), (STATE 1349, 1,
       [sym_type_arguments]), (STATE 1441, 1, [sym_nullable_type]), (STATE 1325, 2, [sym_comment,
       sym_documentation_comment]), (ACTIONS 2539, 4, [anon_sym_GT, anon_sym_PIPE, anon_sym_AMP,
       anon_sym_GT_GT]), (ACTIONS 2531, 24, [anon_sym_RBRACE, anon_sym_COMMA, anon_sym_RBRACK,
       anon_sym_COLON, anon_sym_RPAREN, anon_sym_QMARK_QMARK, sym_equality_operator,
       anon_sym_LT_EQ, anon_sym_GT_EQ, anon_sym_CARET, anon_sym_LT_LT, anon_sym_GT_GT_GT,
       sym__additive_operator, anon_sym_is, anon_sym_as, anon_sym_DOT_DOT,
       anon_sym_QMARK_DOT_DOT, anon_sym_SEMI, anon_sym_EQ_GT, anon_sym_case, anon_sym_else,
       anon_sym_Function, anon_sym_AMP_AMP, anon_sym_PIPE_PIPE])]),
     (65568, 8, [(ACTIONS 3, 1, [anon_sym_SLASH_SLASH]), (ACTIONS 5, 1, [anon_sym_SLASH_STAR]),
       (ACTIONS 7, 1, [anon_sym_SLASH_SLASH_SLASH]), (ACTIONS 9, 1, [sym__block_comment]),
       (ACTIONS 11, 1, [sym__documentation_block_comment]), (STATE 1326, 2, [sym_comment,
       sym_documentation_comment]), (ACTIONS 3302, 13, [anon_sym_POUND, sym_hex_integer_literal,
       anon_sym_DQUOTE_DQUOTE_DQUOTE, anon_sym_SQUOTE_SQUOTE_SQUOTE,
       anon_sym_r_DQUOTE_DQUOTE_DQUOTE, anon_sym_r_SQUOTE_SQUOTE_SQUOTE, anon_sym_LBRACE,
       anon_sym_LBRACK, anon_sym_LPAREN, anon_sym_LT, sym_increment_operator, anon_sym_BANG,
       anon_sym_TILDE]), (ACTIONS 3300, 19, [sym_decimal_integer_literal,
       sym_decimal_floating_point_literal, anon_sym_true, anon_sym_false, anon_sym_DQUOTE,
       anon_sym_SQUOTE, anon_sym_r_DQUOTE, anon_sym_r_SQUOTE, anon_sym_null, anon_sym_throw,
       sym_minus_operator, anon_sym_await, anon_sym_switch, sym_rethrow_builtin, anon_sym_new,
       sym_const_builtin, anon_sym_this, anon_sym_super, sym_identifier])])]"

lemma small_run_485: "small_run 1325 65504 ts_small_parse_table_485 1327 65624"
  by (simp add: small_simps ts_small_parse_table_485_def)

definition ts_small_parse_table_486 :: "small_group list" where
  "ts_small_parse_table_486 = [
     (65624, 13, [(ACTIONS 3, 1, [anon_sym_SLASH_SLASH]), (ACTIONS 5, 1,
       [anon_sym_SLASH_STAR]), (ACTIONS 7, 1, [anon_sym_SLASH_SLASH_SLASH]), (ACTIONS 9, 1,
       [sym__block_comment]), (ACTIONS 11, 1, [sym__documentation_block_comment]), (ACTIONS 161,
       1, [anon_sym_super]), (ACTIONS 3311, 1, [sym_hex_integer_literal]), (STATE 1315, 1,
       [sym_super]), (STATE 2127, 1, [sym__numeric_literal]), (ACTIONS 3308, 2,
       [sym_decimal_integer_literal, sym_decimal_floating_point_literal]), (STATE 1327, 2,
       [sym_comment, sym_documentation_comment]), (ACTIONS 3306, 12, [anon_sym_POUND,
       anon_sym_DQUOTE_DQUOTE_DQUOTE, anon_sym_SQUOTE_SQUOTE_SQUOTE,
       anon_sym_r_DQUOTE_DQUOTE_DQUOTE, anon_sym_r_SQUOTE_SQUOTE_SQUOTE, anon_sym_LBRACE,
       anon_sym_LBRACK, anon_sym_LPAREN, anon_sym_LT, sym_increment_operator, anon_sym_BANG,
       anon_sym_TILDE]), (ACTIONS 3304, 14, [anon_sym_true, anon_sym_false, anon_sym_DQUOTE,
       anon_sym_SQUOTE, anon_sym_r_DQUOTE, anon_sym_r_SQUOTE, anon_sym_null, sym_minus_operator,
       anon_sym_await, anon_sym_switch, anon_sym_new, sym_const_builtin, anon_sym_this,
       sym_identifier])]),
     (65690, 33, [(ACTIONS 3, 1, [anon_sym_SLASH_SLASH]), (ACTIONS 5, 1,
       [anon_sym_SLASH_STAR]), (ACTIONS 7, 1, [anon_sym_SLASH_SLASH_SLASH]), (ACTIONS 9, 1,
       [sym__block_comment]), (ACTIONS 11, 1, [sym__documentation_block_comment]), (ACTIONS 1273,
       1, [anon_sym_GT_GT]), (ACTIONS 1275, 1, [sym__additive_operator]), (ACTIONS 1999, 1,
       [anon_sym_LBRACK]), (ACTIONS 2068, 1, [sym_equality_operator]), (ACTIONS 2072, 1,
       [anon_sym_CARET]), (ACTIONS 2477, 1, [anon_sym_SLASH]), (ACTIONS 3286, 1,
       [anon_sym_PIPE]), (ACTIONS 3288, 1, [anon_sym_AMP]), (ACTIONS 3314, 1, [anon_sym_DOT]),
       (STATE 320, 1, [sym_relational_operator]), (STATE 327, 1, [sym_shift_operator]), (STATE
       328, 1, [sym_additive_operator]), (STATE 424, 1, [sym_multiplicative_operator]), (STATE
       552, 1, [sym_index_selector]), (STATE 568, 1, [sym_unconditional_assignable_selector]),
       (STATE 1177, 1, [aux_sym_multiplicative_expression_repeat1]), (STATE 1334, 1,
       [aux_sym_shift_expression_repeat1]), (STATE 1386, 1,
       [aux_sym_additive_expression_repeat1]), (STATE 1397, 1, [sym__shift_operator]), (STATE
       1405, 1, [aux_sym_bitwise_or_expression_repeat1]), (STATE 1408, 1,
       [aux_sym_bitwise_xor_expression_repeat1]), (STATE 1409, 1,
       [aux_sym_bitwise_and_expression_repeat1]), (STATE 1416, 1,
       [sym__multiplicative_operator]), (ACTIONS 400, 2, [anon_sym_LT, anon_sym_GT]), (ACTIONS
       402, 2, [anon_sym_LT_EQ, anon_sym_GT_EQ]), (ACTIONS 1271, 2, [anon_sym_LT_LT,
       anon_sym_GT_GT_GT]), (STATE 1328, 2, [sym_comment, sym_documentation_comment]), (ACTIONS
       2475, 3, [anon_sym_STAR, anon_sym_PERCENT, anon_sym_TILDE_SLASH])])]"

lemma small_run_486: "small_run 1327 65624 ts_small_parse_table_486 1329 65796"
  by (simp add: small_simps ts_small_parse_table_486_def)

definition ts_small_parse_table_487 :: "small_group list" where
  "ts_small_parse_table_487 = [
     (65796, 13, [(ACTIONS 3, 1, [anon_sym_SLASH_SLASH]), (ACTIONS 5, 1,
       [anon_sym_SLASH_STAR]), (ACTIONS 7, 1, [anon_sym_SLASH_SLASH_SLASH]), (ACTIONS 9, 1,
       [sym__block_comment]), (ACTIONS 11, 1, [sym__documentation_block_comment]), (ACTIONS 2477,
       1, [anon_sym_SLASH]), (STATE 420, 1, [sym_multiplicative_operator]), (STATE 1332, 1,
       [aux_sym_multiplicative_expression_repeat1]), (STATE 1416, 1,
       [sym__multiplicative_operator]), (STATE 1329, 2, [sym_comment,
       sym_documentation_comment]), (ACTIONS 2475, 3, [anon_sym_STAR, anon_sym_PERCENT,
       anon_sym_TILDE_SLASH]), (ACTIONS 2473, 6, [anon_sym_QMARK, anon_sym_LT, anon_sym_GT,
       anon_sym_PIPE, anon_sym_AMP, anon_sym_GT_GT]), (ACTIONS 2471, 19, [anon_sym_RBRACE,
       anon_sym_COMMA, anon_sym_RBRACK, anon_sym_COLON, anon_sym_RPAREN, anon_sym_QMARK_QMARK,
       sym_equality_operator, anon_sym_LT_EQ, anon_sym_GT_EQ, anon_sym_CARET, anon_sym_LT_LT,
       anon_sym_GT_GT_GT, sym__additive_operator, anon_sym_is, anon_sym_as, anon_sym_EQ_GT,
       anon_sym_when, anon_sym_AMP_AMP, anon_sym_PIPE_PIPE])]),
     (65862, 12, [(ACTIONS 3, 1, [anon_sym_SLASH_SLASH]), (ACTIONS 5, 1,
       [anon_sym_SLASH_STAR]), (ACTIONS 7, 1, [anon_sym_SLASH_SLASH_SLASH]), (ACTIONS 9, 1,
       [sym__block_comment]), (ACTIONS 11, 1, [sym__documentation_block_comment]), (ACTIONS 2465,
       1, [anon_sym_GT_GT]), (STATE 327, 1, [sym_shift_operator]), (STATE 1397, 1,
       [sym__shift_operator]), (ACTIONS 2462, 2, [anon_sym_LT_LT, anon_sym_GT_GT_GT]), (STATE
       1330, 3, [sym_comment, sym_documentation_comment, aux_sym_shift_expression_repeat1]),
       (ACTIONS 1359, 5, [anon_sym_QMARK, anon_sym_LT, anon_sym_GT, anon_sym_PIPE,
       anon_sym_AMP]), (ACTIONS 1357, 21, [anon_sym_RBRACE, anon_sym_COMMA, anon_sym_RBRACK,
       anon_sym_COLON, anon_sym_RPAREN, anon_sym_QMARK_QMARK, sym_equality_operator,
       anon_sym_LT_EQ, anon_sym_GT_EQ, anon_sym_CARET, sym__additive_operator, anon_sym_is,
       anon_sym_as, anon_sym_DOT_DOT, anon_sym_QMARK_DOT_DOT, anon_sym_SEMI, anon_sym_EQ_GT,
       anon_sym_case, anon_sym_else, anon_sym_AMP_AMP, anon_sym_PIPE_PIPE])])]"

lemma small_run_487: "small_run 1329 65796 ts_small_parse_table_487 1331 65926"
  by (simp add: small_simps ts_small_parse_table_487_def)

definition ts_small_parse_table_488 :: "small_group list" where
  "ts_small_parse_table_488 = [
     (65926, 14, [(ACTIONS 3, 1, [anon_sym_SLASH_SLASH]), (ACTIONS 5, 1,
       [anon_sym_SLASH_STAR]), (ACTIONS 7, 1, [anon_sym_SLASH_SLASH_SLASH]), (ACTIONS 9, 1,
       [sym__block_comment]), (ACTIONS 11, 1, [sym__documentation_block_comment]), (ACTIONS 3316,
       1, [anon_sym_LPAREN]), (ACTIONS 3318, 1, [anon_sym_QMARK]), (ACTIONS 3322, 1,
       [anon_sym_LT]), (STATE 1353, 1, [sym_nullable_type]), (STATE 1354, 1,
       [sym_type_parameters]), (STATE 1494, 1, [sym_parameter_type_list]), (STATE 1331, 2,
       [sym_comment, sym_documentation_comment]), (ACTIONS 2395, 6, [anon_sym_GT, anon_sym_PIPE,
       anon_sym_AMP, anon_sym_GT_GT, anon_sym_as, anon_sym_async]), (ACTIONS 2380, 20,
       [anon_sym_LBRACE, anon_sym_COMMA, anon_sym_QMARK_QMARK, sym_equality_operator,
       anon_sym_LT_EQ, anon_sym_GT_EQ, anon_sym_CARET, anon_sym_LT_LT, anon_sym_GT_GT_GT,
       sym__additive_operator, anon_sym_is, anon_sym_DOT_DOT, anon_sym_QMARK_DOT_DOT,
       anon_sym_SEMI, anon_sym_EQ_GT, anon_sym_async_STAR, anon_sym_sync_STAR, anon_sym_Function,
       anon_sym_AMP_AMP, anon_sym_PIPE_PIPE])]),
     (65994, 13, [(ACTIONS 3, 1, [anon_sym_SLASH_SLASH]), (ACTIONS 5, 1,
       [anon_sym_SLASH_STAR]), (ACTIONS 7, 1, [anon_sym_SLASH_SLASH_SLASH]), (ACTIONS 9, 1,
       [sym__block_comment]), (ACTIONS 11, 1, [sym__documentation_block_comment]), (ACTIONS 2477,
       1, [anon_sym_SLASH]), (STATE 420, 1, [sym_multiplicative_operator]), (STATE 1321, 1,
       [aux_sym_multiplicative_expression_repeat1]), (STATE 1416, 1,
       [sym__multiplicative_operator]), (STATE 1332, 2, [sym_comment,
       sym_documentation_comment]), (ACTIONS 2475, 3, [anon_sym_STAR, anon_sym_PERCENT,
       anon_sym_TILDE_SLASH]), (ACTIONS 2491, 6, [anon_sym_QMARK, anon_sym_LT, anon_sym_GT,
       anon_sym_PIPE, anon_sym_AMP, anon_sym_GT_GT]), (ACTIONS 2489, 19, [anon_sym_RBRACE,
       anon_sym_COMMA, anon_sym_RBRACK, anon_sym_COLON, anon_sym_RPAREN, anon_sym_QMARK_QMARK,
       sym_equality_operator, anon_sym_LT_EQ, anon_sym_GT_EQ, anon_sym_CARET, anon_sym_LT_LT,
       anon_sym_GT_GT_GT, sym__additive_operator, anon_sym_is, anon_sym_as, anon_sym_EQ_GT,
       anon_sym_when, anon_sym_AMP_AMP, anon_sym_PIPE_PIPE])])]"

lemma small_run_488: "small_run 1331 65926 ts_small_parse_table_488 1333 66060"
  by (simp add: small_simps ts_small_parse_table_488_def)

definition ts_small_parse_table_489 :: "small_group list" where
  "ts_small_parse_table_489 = [
     (66060, 13, [(ACTIONS 3, 1, [anon_sym_SLASH_SLASH]), (ACTIONS 5, 1,
       [anon_sym_SLASH_STAR]), (ACTIONS 7, 1, [anon_sym_SLASH_SLASH_SLASH]), (ACTIONS 9, 1,
       [sym__block_comment]), (ACTIONS 11, 1, [sym__documentation_block_comment]), (ACTIONS 2477,
       1, [anon_sym_SLASH]), (STATE 427, 1, [sym_multiplicative_operator]), (STATE 793, 1,
       [aux_sym_multiplicative_expression_repeat1]), (STATE 1416, 1,
       [sym__multiplicative_operator]), (STATE 1333, 2, [sym_comment,
       sym_documentation_comment]), (ACTIONS 2475, 3, [anon_sym_STAR, anon_sym_PERCENT,
       anon_sym_TILDE_SLASH]), (ACTIONS 2491, 9, [anon_sym_QMARK, anon_sym_LT, anon_sym_GT,
       anon_sym_PIPE, anon_sym_AMP, anon_sym_GT_GT, anon_sym_BANG, anon_sym_DOT,
       anon_sym_QMARK_DOT]), (ACTIONS 2489, 16, [anon_sym_LBRACK, anon_sym_LPAREN,
       anon_sym_QMARK_QMARK, sym_equality_operator, anon_sym_LT_EQ, anon_sym_GT_EQ,
       anon_sym_CARET, anon_sym_LT_LT, anon_sym_GT_GT_GT, sym__additive_operator, anon_sym_is,
       anon_sym_as, anon_sym_DOT_DOT, anon_sym_QMARK_DOT_DOT, anon_sym_AMP_AMP,
       anon_sym_PIPE_PIPE])]),
     (66126, 11, [(ACTIONS 3, 1, [anon_sym_SLASH_SLASH]), (ACTIONS 5, 1,
       [anon_sym_SLASH_STAR]), (ACTIONS 7, 1, [anon_sym_SLASH_SLASH_SLASH]), (ACTIONS 9, 1,
       [sym__block_comment]), (ACTIONS 11, 1, [sym__documentation_block_comment]), (STATE 327, 1,
       [sym_shift_operator]), (STATE 1330, 1, [aux_sym_shift_expression_repeat1]), (STATE 1397,
       1, [sym__shift_operator]), (STATE 1334, 2, [sym_comment, sym_documentation_comment]),
       (ACTIONS 2495, 6, [anon_sym_QMARK, anon_sym_LT, anon_sym_GT, anon_sym_PIPE, anon_sym_AMP,
       anon_sym_GT_GT]), (ACTIONS 2493, 23, [anon_sym_RBRACE, anon_sym_COMMA, anon_sym_RBRACK,
       anon_sym_COLON, anon_sym_RPAREN, anon_sym_QMARK_QMARK, sym_equality_operator,
       anon_sym_LT_EQ, anon_sym_GT_EQ, anon_sym_CARET, anon_sym_LT_LT, anon_sym_GT_GT_GT,
       sym__additive_operator, anon_sym_is, anon_sym_as, anon_sym_DOT_DOT,
       anon_sym_QMARK_DOT_DOT, anon_sym_SEMI, anon_sym_EQ_GT, anon_sym_case, anon_sym_else,
       anon_sym_AMP_AMP, anon_sym_PIPE_PIPE])])]"

lemma small_run_489: "small_run 1333 66060 ts_small_parse_table_489 1335 66188"
  by (simp add: small_simps ts_small_parse_table_489_def)

definition ts_small_parse_table_490 :: "small_group list" where
  "ts_small_parse_table_490 = [
     (66188, 33, [(ACTIONS 3, 1, [anon_sym_SLASH_SLASH]), (ACTIONS 5, 1,
       [anon_sym_SLASH_STAR]), (ACTIONS 7, 1, [anon_sym_SLASH_SLASH_SLASH]), (ACTIONS 9, 1,
       [sym__block_comment]), (ACTIONS 11, 1, [sym__documentation_block_comment]), (ACTIONS 1273,
       1, [anon_sym_GT_GT]), (ACTIONS 1275, 1, [sym__additive_operator]), (ACTIONS 2300, 1,
       [anon_sym_LBRACK]), (ACTIONS 2312, 1, [anon_sym_DOT]), (ACTIONS 2402, 1,
       [sym_equality_operator]), (ACTIONS 2406, 1, [anon_sym_CARET]), (ACTIONS 2477, 1,
       [anon_sym_SLASH]), (ACTIONS 3326, 1, [anon_sym_PIPE]), (ACTIONS 3328, 1, [anon_sym_AMP]),
       (STATE 349, 1, [sym_relational_operator]), (STATE 356, 1, [sym_shift_operator]), (STATE
       361, 1, [sym_additive_operator]), (STATE 420, 1, [sym_multiplicative_operator]), (STATE
       662, 1, [sym_unconditional_assignable_selector]), (STATE 676, 1, [sym_index_selector]),
       (STATE 1332, 1, [aux_sym_multiplicative_expression_repeat1]), (STATE 1397, 1,
       [sym__shift_operator]), (STATE 1416, 1, [sym__multiplicative_operator]), (STATE 1535, 1,
       [aux_sym_shift_expression_repeat1]), (STATE 1606, 1,
       [aux_sym_additive_expression_repeat1]), (STATE 1617, 1,
       [aux_sym_bitwise_and_expression_repeat1]), (STATE 1626, 1,
       [aux_sym_bitwise_xor_expression_repeat1]), (STATE 1660, 1,
       [aux_sym_bitwise_or_expression_repeat1]), (ACTIONS 400, 2, [anon_sym_LT, anon_sym_GT]),
       (ACTIONS 402, 2, [anon_sym_LT_EQ, anon_sym_GT_EQ]), (ACTIONS 1271, 2, [anon_sym_LT_LT,
       anon_sym_GT_GT_GT]), (STATE 1335, 2, [sym_comment, sym_documentation_comment]), (ACTIONS
       2475, 3, [anon_sym_STAR, anon_sym_PERCENT, anon_sym_TILDE_SLASH])]),
     (66294, 14, [(ACTIONS 3, 1, [anon_sym_SLASH_SLASH]), (ACTIONS 5, 1,
       [anon_sym_SLASH_STAR]), (ACTIONS 7, 1, [anon_sym_SLASH_SLASH_SLASH]), (ACTIONS 9, 1,
       [sym__block_comment]), (ACTIONS 11, 1, [sym__documentation_block_comment]), (ACTIONS 3316,
       1, [anon_sym_LPAREN]), (ACTIONS 3330, 1, [anon_sym_QMARK]), (ACTIONS 3333, 1,
       [anon_sym_LT]), (STATE 1352, 1, [sym_nullable_type]), (STATE 1354, 1,
       [sym_type_parameters]), (STATE 1494, 1, [sym_parameter_type_list]), (STATE 1336, 2,
       [sym_comment, sym_documentation_comment]), (ACTIONS 2460, 6, [anon_sym_GT, anon_sym_PIPE,
       anon_sym_AMP, anon_sym_GT_GT, anon_sym_as, anon_sym_async]), (ACTIONS 2449, 20,
       [anon_sym_LBRACE, anon_sym_COMMA, anon_sym_QMARK_QMARK, sym_equality_operator,
       anon_sym_LT_EQ, anon_sym_GT_EQ, anon_sym_CARET, anon_sym_LT_LT, anon_sym_GT_GT_GT,
       sym__additive_operator, anon_sym_is, anon_sym_DOT_DOT, anon_sym_QMARK_DOT_DOT,
       anon_sym_SEMI, anon_sym_EQ_GT, anon_sym_async_STAR, anon_sym_sync_STAR, anon_sym_Function,
       anon_sym_AMP_AMP, anon_sym_PIPE_PIPE])])]"

lemma small_run_490: "small_run 1335 66188 ts_small_parse_table_490 1337 66362"
  by (simp add: small_simps ts_small_parse_table_490_def)

definition ts_small_parse_table_491 :: "small_group list" where
  "ts_small_parse_table_491 = [
     (66362, 33, [(ACTIONS 3, 1, [anon_sym_SLASH_SLASH]), (ACTIONS 5, 1,
       [anon_sym_SLASH_STAR]), (ACTIONS 7, 1, [anon_sym_SLASH_SLASH_SLASH]), (ACTIONS 9, 1,
       [sym__block_comment]), (ACTIONS 11, 1, [sym__documentation_block_comment]), (ACTIONS 1273,
       1, [anon_sym_GT_GT]), (ACTIONS 1275, 1, [sym__additive_operator]), (ACTIONS 1999, 1,
       [anon_sym_LBRACK]), (ACTIONS 2068, 1, [sym_equality_operator]), (ACTIONS 2072, 1,
       [anon_sym_CARET]), (ACTIONS 2477, 1, [anon_sym_SLASH]), (ACTIONS 3286, 1,
       [anon_sym_PIPE]), (ACTIONS 3288, 1, [anon_sym_AMP]), (ACTIONS 3336, 1, [anon_sym_DOT]),
       (STATE 320, 1, [sym_relational_operator]), (STATE 327, 1, [sym_shift_operator]), (STATE
       328, 1, [sym_additive_operator]), (STATE 424, 1, [sym_multiplicative_operator]), (STATE
       552, 1, [sym_index_selector]), (STATE 568, 1, [sym_unconditional_assignable_selector]),
       (STATE 1177, 1, [aux_sym_multiplicative_expression_repeat1]), (STATE 1334, 1,
       [aux_sym_shift_expression_repeat1]), (STATE 1386, 1,
       [aux_sym_additive_expression_repeat1]), (STATE 1397, 1, [sym__shift_operator]), (STATE
       1405, 1, [aux_sym_bitwise_or_expression_repeat1]), (STATE 1408, 1,
       [aux_sym_bitwise_xor_expression_repeat1]), (STATE 1409, 1,
       [aux_sym_bitwise_and_expression_repeat1]), (STATE 1416, 1,
       [sym__multiplicative_operator]), (ACTIONS 400, 2, [anon_sym_LT, anon_sym_GT]), (ACTIONS
       402, 2, [anon_sym_LT_EQ, anon_sym_GT_EQ]), (ACTIONS 1271, 2, [anon_sym_LT_LT,
       anon_sym_GT_GT_GT]), (STATE 1337, 2, [sym_comment, sym_documentation_comment]), (ACTIONS
       2475, 3, [anon_sym_STAR, anon_sym_PERCENT, anon_sym_TILDE_SLASH])]),
     (66468, 33, [(ACTIONS 3, 1, [anon_sym_SLASH_SLASH]), (ACTIONS 5, 1,
       [anon_sym_SLASH_STAR]), (ACTIONS 7, 1, [anon_sym_SLASH_SLASH_SLASH]), (ACTIONS 9, 1,
       [sym__block_comment]), (ACTIONS 11, 1, [sym__documentation_block_comment]), (ACTIONS 1263,
       1, [sym_equality_operator]), (ACTIONS 1267, 1, [anon_sym_CARET]), (ACTIONS 1273, 1,
       [anon_sym_GT_GT]), (ACTIONS 1275, 1, [sym__additive_operator]), (ACTIONS 1999, 1,
       [anon_sym_LBRACK]), (ACTIONS 2477, 1, [anon_sym_SLASH]), (ACTIONS 3336, 1,
       [anon_sym_DOT]), (ACTIONS 3338, 1, [anon_sym_PIPE]), (ACTIONS 3340, 1, [anon_sym_AMP]),
       (STATE 329, 1, [sym_relational_operator]), (STATE 343, 1, [sym_shift_operator]), (STATE
       368, 1, [sym_additive_operator]), (STATE 427, 1, [sym_multiplicative_operator]), (STATE
       552, 1, [sym_index_selector]), (STATE 568, 1, [sym_unconditional_assignable_selector]),
       (STATE 791, 1, [aux_sym_multiplicative_expression_repeat1]), (STATE 792, 1,
       [aux_sym_shift_expression_repeat1]), (STATE 833, 1,
       [aux_sym_additive_expression_repeat1]), (STATE 839, 1,
       [aux_sym_bitwise_or_expression_repeat1]), (STATE 840, 1,
       [aux_sym_bitwise_xor_expression_repeat1]), (STATE 841, 1,
       [aux_sym_bitwise_and_expression_repeat1]), (STATE 1397, 1, [sym__shift_operator]), (STATE
       1416, 1, [sym__multiplicative_operator]), (ACTIONS 400, 2, [anon_sym_LT, anon_sym_GT]),
       (ACTIONS 402, 2, [anon_sym_LT_EQ, anon_sym_GT_EQ]), (ACTIONS 1271, 2, [anon_sym_LT_LT,
       anon_sym_GT_GT_GT]), (STATE 1338, 2, [sym_comment, sym_documentation_comment]), (ACTIONS
       2475, 3, [anon_sym_STAR, anon_sym_PERCENT, anon_sym_TILDE_SLASH])])]"

lemma small_run_491: "small_run 1337 66362 ts_small_parse_table_491 1339 66574"
  by (simp add: small_simps ts_small_parse_table_491_def)

definition ts_small_parse_table_492 :: "small_group list" where
  "ts_small_parse_table_492 = [
     (66574, 33, [(ACTIONS 3, 1, [anon_sym_SLASH_SLASH]), (ACTIONS 5, 1,
       [anon_sym_SLASH_STAR]), (ACTIONS 7, 1, [anon_sym_SLASH_SLASH_SLASH]), (ACTIONS 9, 1,
       [sym__block_comment]), (ACTIONS 11, 1, [sym__documentation_block_comment]), (ACTIONS 1273,
       1, [anon_sym_GT_GT]), (ACTIONS 1275, 1, [sym__additive_operator]), (ACTIONS 1999, 1,
       [anon_sym_LBRACK]), (ACTIONS 2336, 1, [sym_equality_operator]), (ACTIONS 2340, 1,
       [anon_sym_CARET]), (ACTIONS 2477, 1, [anon_sym_SLASH]), (ACTIONS 3336, 1, [anon_sym_DOT]),
       (ACTIONS 3342, 1, [anon_sym_PIPE]), (ACTIONS 3344, 1, [anon_sym_AMP]), (STATE 335, 1,
       [sym_additive_operator]), (STATE 339, 1, [sym_shift_operator]), (STATE 351, 1,
       [sym_relational_operator]), (STATE 427, 1, [sym_multiplicative_operator]), (STATE 552, 1,
       [sym_index_selector]), (STATE 568, 1, [sym_unconditional_assignable_selector]), (STATE
       1333, 1, [aux_sym_multiplicative_expression_repeat1]), (STATE 1397, 1,
       [sym__shift_operator]), (STATE 1416, 1, [sym__multiplicative_operator]), (STATE 1517, 1,
       [aux_sym_shift_expression_repeat1]), (STATE 1582, 1,
       [aux_sym_additive_expression_repeat1]), (STATE 1663, 1,
       [aux_sym_bitwise_or_expression_repeat1]), (STATE 1665, 1,
       [aux_sym_bitwise_xor_expression_repeat1]), (STATE 1666, 1,
       [aux_sym_bitwise_and_expression_repeat1]), (ACTIONS 400, 2, [anon_sym_LT, anon_sym_GT]),
       (ACTIONS 402, 2, [anon_sym_LT_EQ, anon_sym_GT_EQ]), (ACTIONS 1271, 2, [anon_sym_LT_LT,
       anon_sym_GT_GT_GT]), (STATE 1339, 2, [sym_comment, sym_documentation_comment]), (ACTIONS
       2475, 3, [anon_sym_STAR, anon_sym_PERCENT, anon_sym_TILDE_SLASH])]),
     (66680, 33, [(ACTIONS 3, 1, [anon_sym_SLASH_SLASH]), (ACTIONS 5, 1,
       [anon_sym_SLASH_STAR]), (ACTIONS 7, 1, [anon_sym_SLASH_SLASH_SLASH]), (ACTIONS 9, 1,
       [sym__block_comment]), (ACTIONS 11, 1, [sym__documentation_block_comment]), (ACTIONS 1263,
       1, [sym_equality_operator]), (ACTIONS 1267, 1, [anon_sym_CARET]), (ACTIONS 1273, 1,
       [anon_sym_GT_GT]), (ACTIONS 1275, 1, [sym__additive_operator]), (ACTIONS 2042, 1,
       [anon_sym_LBRACK]), (ACTIONS 2477, 1, [anon_sym_SLASH]), (ACTIONS 3290, 1,
       [anon_sym_DOT]), (ACTIONS 3338, 1, [anon_sym_PIPE]), (ACTIONS 3340, 1, [anon_sym_AMP]),
       (STATE 329, 1, [sym_relational_operator]), (STATE 343, 1, [sym_shift_operator]), (STATE
       368, 1, [sym_additive_operator]), (STATE 427, 1, [sym_multiplicative_operator]), (STATE
       791, 1, [aux_sym_multiplicative_expression_repeat1]), (STATE 792, 1,
       [aux_sym_shift_expression_repeat1]), (STATE 833, 1,
       [aux_sym_additive_expression_repeat1]), (STATE 836, 1, [sym_index_selector]), (STATE 839,
       1, [aux_sym_bitwise_or_expression_repeat1]), (STATE 840, 1,
       [aux_sym_bitwise_xor_expression_repeat1]), (STATE 841, 1,
       [aux_sym_bitwise_and_expression_repeat1]), (STATE 871, 1,
       [sym_unconditional_assignable_selector]), (STATE 1397, 1, [sym__shift_operator]), (STATE
       1416, 1, [sym__multiplicative_operator]), (ACTIONS 400, 2, [anon_sym_LT, anon_sym_GT]),
       (ACTIONS 402, 2, [anon_sym_LT_EQ, anon_sym_GT_EQ]), (ACTIONS 1271, 2, [anon_sym_LT_LT,
       anon_sym_GT_GT_GT]), (STATE 1340, 2, [sym_comment, sym_documentation_comment]), (ACTIONS
       2475, 3, [anon_sym_STAR, anon_sym_PERCENT, anon_sym_TILDE_SLASH])])]"

lemma small_run_492: "small_run 1339 66574 ts_small_parse_table_492 1341 66786"
  by (simp add: small_simps ts_small_parse_table_492_def)

definition ts_small_parse_table_493 :: "small_group list" where
  "ts_small_parse_table_493 = [
     (66786, 10, [(ACTIONS 3, 1, [anon_sym_SLASH_SLASH]), (ACTIONS 5, 1,
       [anon_sym_SLASH_STAR]), (ACTIONS 7, 1, [anon_sym_SLASH_SLASH_SLASH]), (ACTIONS 9, 1,
       [sym__block_comment]), (ACTIONS 11, 1, [sym__documentation_block_comment]), (ACTIONS 3346,
       1, [anon_sym_DOT]), (STATE 1442, 1, [sym__type_dot_identifier]), (STATE 1341, 2,
       [sym_comment, sym_documentation_comment]), (ACTIONS 1320, 6, [anon_sym_QMARK, anon_sym_LT,
       anon_sym_GT, anon_sym_PIPE, anon_sym_AMP, anon_sym_GT_GT]), (ACTIONS 2015, 24,
       [anon_sym_RBRACE, anon_sym_COMMA, anon_sym_RBRACK, anon_sym_COLON, anon_sym_RPAREN,
       anon_sym_QMARK_QMARK, sym_equality_operator, anon_sym_LT_EQ, anon_sym_GT_EQ,
       anon_sym_CARET, anon_sym_LT_LT, anon_sym_GT_GT_GT, sym__additive_operator, anon_sym_is,
       anon_sym_as, anon_sym_DOT_DOT, anon_sym_QMARK_DOT_DOT, anon_sym_SEMI, anon_sym_EQ_GT,
       anon_sym_case, anon_sym_else, anon_sym_Function, anon_sym_AMP_AMP, anon_sym_PIPE_PIPE])]),
     (66846, 33, [(ACTIONS 3, 1, [anon_sym_SLASH_SLASH]), (ACTIONS 5, 1,
       [anon_sym_SLASH_STAR]), (ACTIONS 7, 1, [anon_sym_SLASH_SLASH_SLASH]), (ACTIONS 9, 1,
       [sym__block_comment]), (ACTIONS 11, 1, [sym__documentation_block_comment]), (ACTIONS 1273,
       1, [anon_sym_GT_GT]), (ACTIONS 1275, 1, [sym__additive_operator]), (ACTIONS 2158, 1,
       [anon_sym_LBRACK]), (ACTIONS 2202, 1, [sym_equality_operator]), (ACTIONS 2206, 1,
       [anon_sym_CARET]), (ACTIONS 2477, 1, [anon_sym_SLASH]), (ACTIONS 3348, 1,
       [anon_sym_PIPE]), (ACTIONS 3350, 1, [anon_sym_AMP]), (ACTIONS 3352, 1, [anon_sym_DOT]),
       (STATE 355, 1, [sym_additive_operator]), (STATE 363, 1, [sym_relational_operator]), (STATE
       367, 1, [sym_shift_operator]), (STATE 430, 1, [sym_multiplicative_operator]), (STATE 1028,
       1, [sym_unconditional_assignable_selector]), (STATE 1034, 1, [sym_index_selector]), (STATE
       1251, 1, [aux_sym_multiplicative_expression_repeat1]), (STATE 1397, 1,
       [sym__shift_operator]), (STATE 1416, 1, [sym__multiplicative_operator]), (STATE 1418, 1,
       [aux_sym_shift_expression_repeat1]), (STATE 1461, 1,
       [aux_sym_additive_expression_repeat1]), (STATE 1513, 1,
       [aux_sym_bitwise_or_expression_repeat1]), (STATE 1514, 1,
       [aux_sym_bitwise_xor_expression_repeat1]), (STATE 1516, 1,
       [aux_sym_bitwise_and_expression_repeat1]), (ACTIONS 400, 2, [anon_sym_LT, anon_sym_GT]),
       (ACTIONS 402, 2, [anon_sym_LT_EQ, anon_sym_GT_EQ]), (ACTIONS 1271, 2, [anon_sym_LT_LT,
       anon_sym_GT_GT_GT]), (STATE 1342, 2, [sym_comment, sym_documentation_comment]), (ACTIONS
       2475, 3, [anon_sym_STAR, anon_sym_PERCENT, anon_sym_TILDE_SLASH])])]"

lemma small_run_493: "small_run 1341 66786 ts_small_parse_table_493 1343 66952"
  by (simp add: small_simps ts_small_parse_table_493_def)

definition ts_small_parse_table_494 :: "small_group list" where
  "ts_small_parse_table_494 = [
     (66952, 33, [(ACTIONS 3, 1, [anon_sym_SLASH_SLASH]), (ACTIONS 5, 1,
       [anon_sym_SLASH_STAR]), (ACTIONS 7, 1, [anon_sym_SLASH_SLASH_SLASH]), (ACTIONS 9, 1,
       [sym__block_comment]), (ACTIONS 11, 1, [sym__documentation_block_comment]), (ACTIONS 1273,
       1, [anon_sym_GT_GT]), (ACTIONS 1275, 1, [sym__additive_operator]), (ACTIONS 2042, 1,
       [anon_sym_LBRACK]), (ACTIONS 2336, 1, [sym_equality_operator]), (ACTIONS 2340, 1,
       [anon_sym_CARET]), (ACTIONS 2477, 1, [anon_sym_SLASH]), (ACTIONS 3290, 1, [anon_sym_DOT]),
       (ACTIONS 3342, 1, [anon_sym_PIPE]), (ACTIONS 3344, 1, [anon_sym_AMP]), (STATE 335, 1,
       [sym_additive_operator]), (STATE 339, 1, [sym_shift_operator]), (STATE 351, 1,
       [sym_relational_operator]), (STATE 427, 1, [sym_multiplicative_operator]), (STATE 836, 1,
       [sym_index_selector]), (STATE 871, 1, [sym_unconditional_assignable_selector]), (STATE
       1333, 1, [aux_sym_multiplicative_expression_repeat1]), (STATE 1397, 1,
       [sym__shift_operator]), (STATE 1416, 1, [sym__multiplicative_operator]), (STATE 1517, 1,
       [aux_sym_shift_expression_repeat1]), (STATE 1582, 1,
       [aux_sym_additive_expression_repeat1]), (STATE 1663, 1,
       [aux_sym_bitwise_or_expression_repeat1]), (STATE 1665, 1,
       [aux_sym_bitwise_xor_expression_repeat1]), (STATE 1666, 1,
       [aux_sym_bitwise_and_expression_repeat1]), (ACTIONS 400, 2, [anon_sym_LT, anon_sym_GT]),
       (ACTIONS 402, 2, [anon_sym_LT_EQ, anon_sym_GT_EQ]), (ACTIONS 1271, 2, [anon_sym_LT_LT,
       anon_sym_GT_GT_GT]), (STATE 1343, 2, [sym_comment, sym_documentation_comment]), (ACTIONS
       2475, 3, [anon_sym_STAR, anon_sym_PERCENT, anon_sym_TILDE_SLASH])]),
     (67058, 33, [(ACTIONS 3, 1, [anon_sym_SLASH_SLASH]), (ACTIONS 5, 1,
       [anon_sym_SLASH_STAR]), (ACTIONS 7, 1, [anon_sym_SLASH_SLASH_SLASH]), (ACTIONS 9, 1,
       [sym__block_comment]), (ACTIONS 11, 1, [sym__documentation_block_comment]), (ACTIONS 1273,
       1, [anon_sym_GT_GT]), (ACTIONS 1275, 1, [sym__additive_operator]), (ACTIONS 1440, 1,
       [sym_equality_operator]), (ACTIONS 1444, 1, [anon_sym_CARET]), (ACTIONS 2214, 1,
       [anon_sym_LBRACK]), (ACTIONS 2477, 1, [anon_sym_SLASH]), (ACTIONS 3354, 1,
       [anon_sym_PIPE]), (ACTIONS 3356, 1, [anon_sym_AMP]), (ACTIONS 3358, 1, [anon_sym_DOT]),
       (STATE 317, 1, [sym_relational_operator]), (STATE 319, 1, [sym_shift_operator]), (STATE
       321, 1, [sym_additive_operator]), (STATE 425, 1, [sym_multiplicative_operator]), (STATE
       607, 1, [sym_index_selector]), (STATE 620, 1, [sym_unconditional_assignable_selector]),
       (STATE 930, 1, [aux_sym_multiplicative_expression_repeat1]), (STATE 987, 1,
       [aux_sym_shift_expression_repeat1]), (STATE 1005, 1,
       [aux_sym_additive_expression_repeat1]), (STATE 1063, 1,
       [aux_sym_bitwise_xor_expression_repeat1]), (STATE 1072, 1,
       [aux_sym_bitwise_or_expression_repeat1]), (STATE 1084, 1,
       [aux_sym_bitwise_and_expression_repeat1]), (STATE 1397, 1, [sym__shift_operator]), (STATE
       1416, 1, [sym__multiplicative_operator]), (ACTIONS 400, 2, [anon_sym_LT, anon_sym_GT]),
       (ACTIONS 402, 2, [anon_sym_LT_EQ, anon_sym_GT_EQ]), (ACTIONS 1271, 2, [anon_sym_LT_LT,
       anon_sym_GT_GT_GT]), (STATE 1344, 2, [sym_comment, sym_documentation_comment]), (ACTIONS
       2475, 3, [anon_sym_STAR, anon_sym_PERCENT, anon_sym_TILDE_SLASH])])]"

lemma small_run_494: "small_run 1343 66952 ts_small_parse_table_494 1345 67164"
  by (simp add: small_simps ts_small_parse_table_494_def)

definition ts_small_parse_table_495 :: "small_group list" where
  "ts_small_parse_table_495 = [
     (67164, 33, [(ACTIONS 3, 1, [anon_sym_SLASH_SLASH]), (ACTIONS 5, 1,
       [anon_sym_SLASH_STAR]), (ACTIONS 7, 1, [anon_sym_SLASH_SLASH_SLASH]), (ACTIONS 9, 1,
       [sym__block_comment]), (ACTIONS 11, 1, [sym__documentation_block_comment]), (ACTIONS 1273,
       1, [anon_sym_GT_GT]), (ACTIONS 1275, 1, [sym__additive_operator]), (ACTIONS 2202, 1,
       [sym_equality_operator]), (ACTIONS 2206, 1, [anon_sym_CARET]), (ACTIONS 2214, 1,
       [anon_sym_LBRACK]), (ACTIONS 2477, 1, [anon_sym_SLASH]), (ACTIONS 3348, 1,
       [anon_sym_PIPE]), (ACTIONS 3350, 1, [anon_sym_AMP]), (ACTIONS 3358, 1, [anon_sym_DOT]),
       (STATE 355, 1, [sym_additive_operator]), (STATE 363, 1, [sym_relational_operator]), (STATE
       367, 1, [sym_shift_operator]), (STATE 430, 1, [sym_multiplicative_operator]), (STATE 607,
       1, [sym_index_selector]), (STATE 620, 1, [sym_unconditional_assignable_selector]), (STATE
       1251, 1, [aux_sym_multiplicative_expression_repeat1]), (STATE 1397, 1,
       [sym__shift_operator]), (STATE 1416, 1, [sym__multiplicative_operator]), (STATE 1418, 1,
       [aux_sym_shift_expression_repeat1]), (STATE 1461, 1,
       [aux_sym_additive_expression_repeat1]), (STATE 1513, 1,
       [aux_sym_bitwise_or_expression_repeat1]), (STATE 1514, 1,
       [aux_sym_bitwise_xor_expression_repeat1]), (STATE 1516, 1,
       [aux_sym_bitwise_and_expression_repeat1]), (ACTIONS 400, 2, [anon_sym_LT, anon_sym_GT]),
       (ACTIONS 402, 2, [anon_sym_LT_EQ, anon_sym_GT_EQ]), (ACTIONS 1271, 2, [anon_sym_LT_LT,
       anon_sym_GT_GT_GT]), (STATE 1345, 2, [sym_comment, sym_documentation_comment]), (ACTIONS
       2475, 3, [anon_sym_STAR, anon_sym_PERCENT, anon_sym_TILDE_SLASH])]),
     (67270, 33, [(ACTIONS 3, 1, [anon_sym_SLASH_SLASH]), (ACTIONS 5, 1,
       [anon_sym_SLASH_STAR]), (ACTIONS 7, 1, [anon_sym_SLASH_SLASH_SLASH]), (ACTIONS 9, 1,
       [sym__block_comment]), (ACTIONS 11, 1, [sym__documentation_block_comment]), (ACTIONS 1273,
       1, [anon_sym_GT_GT]), (ACTIONS 1275, 1, [sym__additive_operator]), (ACTIONS 1440, 1,
       [sym_equality_operator]), (ACTIONS 1444, 1, [anon_sym_CARET]), (ACTIONS 2158, 1,
       [anon_sym_LBRACK]), (ACTIONS 2477, 1, [anon_sym_SLASH]), (ACTIONS 3352, 1,
       [anon_sym_DOT]), (ACTIONS 3354, 1, [anon_sym_PIPE]), (ACTIONS 3356, 1, [anon_sym_AMP]),
       (STATE 317, 1, [sym_relational_operator]), (STATE 319, 1, [sym_shift_operator]), (STATE
       321, 1, [sym_additive_operator]), (STATE 425, 1, [sym_multiplicative_operator]), (STATE
       930, 1, [aux_sym_multiplicative_expression_repeat1]), (STATE 987, 1,
       [aux_sym_shift_expression_repeat1]), (STATE 1005, 1,
       [aux_sym_additive_expression_repeat1]), (STATE 1028, 1,
       [sym_unconditional_assignable_selector]), (STATE 1034, 1, [sym_index_selector]), (STATE
       1063, 1, [aux_sym_bitwise_xor_expression_repeat1]), (STATE 1072, 1,
       [aux_sym_bitwise_or_expression_repeat1]), (STATE 1084, 1,
       [aux_sym_bitwise_and_expression_repeat1]), (STATE 1397, 1, [sym__shift_operator]), (STATE
       1416, 1, [sym__multiplicative_operator]), (ACTIONS 400, 2, [anon_sym_LT, anon_sym_GT]),
       (ACTIONS 402, 2, [anon_sym_LT_EQ, anon_sym_GT_EQ]), (ACTIONS 1271, 2, [anon_sym_LT_LT,
       anon_sym_GT_GT_GT]), (STATE 1346, 2, [sym_comment, sym_documentation_comment]), (ACTIONS
       2475, 3, [anon_sym_STAR, anon_sym_PERCENT, anon_sym_TILDE_SLASH])])]"

lemma small_run_495: "small_run 1345 67164 ts_small_parse_table_495 1347 67376"
  by (simp add: small_simps ts_small_parse_table_495_def)

definition ts_small_parse_table_496 :: "small_group list" where
  "ts_small_parse_table_496 = [
     (67376, 33, [(ACTIONS 3, 1, [anon_sym_SLASH_SLASH]), (ACTIONS 5, 1,
       [anon_sym_SLASH_STAR]), (ACTIONS 7, 1, [anon_sym_SLASH_SLASH_SLASH]), (ACTIONS 9, 1,
       [sym__block_comment]), (ACTIONS 11, 1, [sym__documentation_block_comment]), (ACTIONS 1273,
       1, [anon_sym_GT_GT]), (ACTIONS 1275, 1, [sym__additive_operator]), (ACTIONS 2320, 1,
       [anon_sym_LBRACK]), (ACTIONS 2325, 1, [anon_sym_DOT]), (ACTIONS 2402, 1,
       [sym_equality_operator]), (ACTIONS 2406, 1, [anon_sym_CARET]), (ACTIONS 2477, 1,
       [anon_sym_SLASH]), (ACTIONS 3326, 1, [anon_sym_PIPE]), (ACTIONS 3328, 1, [anon_sym_AMP]),
       (STATE 349, 1, [sym_relational_operator]), (STATE 356, 1, [sym_shift_operator]), (STATE
       361, 1, [sym_additive_operator]), (STATE 420, 1, [sym_multiplicative_operator]), (STATE
       1205, 1, [sym_unconditional_assignable_selector]), (STATE 1211, 1, [sym_index_selector]),
       (STATE 1332, 1, [aux_sym_multiplicative_expression_repeat1]), (STATE 1397, 1,
       [sym__shift_operator]), (STATE 1416, 1, [sym__multiplicative_operator]), (STATE 1535, 1,
       [aux_sym_shift_expression_repeat1]), (STATE 1606, 1,
       [aux_sym_additive_expression_repeat1]), (STATE 1617, 1,
       [aux_sym_bitwise_and_expression_repeat1]), (STATE 1626, 1,
       [aux_sym_bitwise_xor_expression_repeat1]), (STATE 1660, 1,
       [aux_sym_bitwise_or_expression_repeat1]), (ACTIONS 400, 2, [anon_sym_LT, anon_sym_GT]),
       (ACTIONS 402, 2, [anon_sym_LT_EQ, anon_sym_GT_EQ]), (ACTIONS 1271, 2, [anon_sym_LT_LT,
       anon_sym_GT_GT_GT]), (STATE 1347, 2, [sym_comment, sym_documentation_comment]), (ACTIONS
       2475, 3, [anon_sym_STAR, anon_sym_PERCENT, anon_sym_TILDE_SLASH])]),
     (67482, 33, [(ACTIONS 3, 1, [anon_sym_SLASH_SLASH]), (ACTIONS 5, 1,
       [anon_sym_SLASH_STAR]), (ACTIONS 7, 1, [anon_sym_SLASH_SLASH_SLASH]), (ACTIONS 9, 1,
       [sym__block_comment]), (ACTIONS 11, 1, [sym__documentation_block_comment]), (ACTIONS 1273,
       1, [anon_sym_GT_GT]), (ACTIONS 1275, 1, [sym__additive_operator]), (ACTIONS 1999, 1,
       [anon_sym_LBRACK]), (ACTIONS 2068, 1, [sym_equality_operator]), (ACTIONS 2072, 1,
       [anon_sym_CARET]), (ACTIONS 2477, 1, [anon_sym_SLASH]), (ACTIONS 3286, 1,
       [anon_sym_PIPE]), (ACTIONS 3288, 1, [anon_sym_AMP]), (ACTIONS 3360, 1, [anon_sym_DOT]),
       (STATE 320, 1, [sym_relational_operator]), (STATE 327, 1, [sym_shift_operator]), (STATE
       328, 1, [sym_additive_operator]), (STATE 424, 1, [sym_multiplicative_operator]), (STATE
       552, 1, [sym_index_selector]), (STATE 568, 1, [sym_unconditional_assignable_selector]),
       (STATE 1177, 1, [aux_sym_multiplicative_expression_repeat1]), (STATE 1334, 1,
       [aux_sym_shift_expression_repeat1]), (STATE 1386, 1,
       [aux_sym_additive_expression_repeat1]), (STATE 1397, 1, [sym__shift_operator]), (STATE
       1405, 1, [aux_sym_bitwise_or_expression_repeat1]), (STATE 1408, 1,
       [aux_sym_bitwise_xor_expression_repeat1]), (STATE 1409, 1,
       [aux_sym_bitwise_and_expression_repeat1]), (STATE 1416, 1,
       [sym__multiplicative_operator]), (ACTIONS 400, 2, [anon_sym_LT, anon_sym_GT]), (ACTIONS
       402, 2, [anon_sym_LT_EQ, anon_sym_GT_EQ]), (ACTIONS 1271, 2, [anon_sym_LT_LT,
       anon_sym_GT_GT_GT]), (STATE 1348, 2, [sym_comment, sym_documentation_comment]), (ACTIONS
       2475, 3, [anon_sym_STAR, anon_sym_PERCENT, anon_sym_TILDE_SLASH])])]"

lemma small_run_496: "small_run 1347 67376 ts_small_parse_table_496 1349 67588"
  by (simp add: small_simps ts_small_parse_table_496_def)

definition ts_small_parse_table_497 :: "small_group list" where
  "ts_small_parse_table_497 = [
     (67588, 10, [(ACTIONS 3, 1, [anon_sym_SLASH_SLASH]), (ACTIONS 5, 1,
       [anon_sym_SLASH_STAR]), (ACTIONS 7, 1, [anon_sym_SLASH_SLASH_SLASH]), (ACTIONS 9, 1,
       [sym__block_comment]), (ACTIONS 11, 1, [sym__documentation_block_comment]), (ACTIONS 3362,
       1, [anon_sym_QMARK]), (STATE 1427, 1, [sym_nullable_type]), (STATE 1349, 2, [sym_comment,
       sym_documentation_comment]), (ACTIONS 2555, 5, [anon_sym_LT, anon_sym_GT, anon_sym_PIPE,
       anon_sym_AMP, anon_sym_GT_GT]), (ACTIONS 2550, 24, [anon_sym_RBRACE, anon_sym_COMMA,
       anon_sym_RBRACK, anon_sym_COLON, anon_sym_RPAREN, anon_sym_QMARK_QMARK,
       sym_equality_operator, anon_sym_LT_EQ, anon_sym_GT_EQ, anon_sym_CARET, anon_sym_LT_LT,
       anon_sym_GT_GT_GT, sym__additive_operator, anon_sym_is, anon_sym_as, anon_sym_DOT_DOT,
       anon_sym_QMARK_DOT_DOT, anon_sym_SEMI, anon_sym_EQ_GT, anon_sym_case, anon_sym_else,
       anon_sym_Function, anon_sym_AMP_AMP, anon_sym_PIPE_PIPE])]),
     (67647, 8, [(ACTIONS 3, 1, [anon_sym_SLASH_SLASH]), (ACTIONS 5, 1, [anon_sym_SLASH_STAR]),
       (ACTIONS 7, 1, [anon_sym_SLASH_SLASH_SLASH]), (ACTIONS 9, 1, [sym__block_comment]),
       (ACTIONS 11, 1, [sym__documentation_block_comment]), (STATE 1350, 2, [sym_comment,
       sym_documentation_comment]), (ACTIONS 2934, 9, [anon_sym_QMARK, anon_sym_LT, anon_sym_GT,
       anon_sym_PIPE, anon_sym_AMP, anon_sym_GT_GT, anon_sym_SLASH, anon_sym_as,
       anon_sym_async]), (ACTIONS 2932, 22, [anon_sym_LBRACE, anon_sym_COMMA,
       anon_sym_QMARK_QMARK, sym_equality_operator, anon_sym_LT_EQ, anon_sym_GT_EQ,
       anon_sym_CARET, anon_sym_LT_LT, anon_sym_GT_GT_GT, sym__additive_operator, anon_sym_STAR,
       anon_sym_PERCENT, anon_sym_TILDE_SLASH, anon_sym_is, anon_sym_DOT_DOT,
       anon_sym_QMARK_DOT_DOT, anon_sym_SEMI, anon_sym_EQ_GT, anon_sym_async_STAR,
       anon_sym_sync_STAR, anon_sym_AMP_AMP, anon_sym_PIPE_PIPE])]),
     (67702, 12, [(ACTIONS 3, 1, [anon_sym_SLASH_SLASH]), (ACTIONS 5, 1,
       [anon_sym_SLASH_STAR]), (ACTIONS 7, 1, [anon_sym_SLASH_SLASH_SLASH]), (ACTIONS 9, 1,
       [sym__block_comment]), (ACTIONS 11, 1, [sym__documentation_block_comment]), (ACTIONS 3316,
       1, [anon_sym_LPAREN]), (ACTIONS 3365, 1, [anon_sym_QMARK]), (STATE 1459, 1,
       [sym_parameter_type_list]), (STATE 1528, 1, [sym_nullable_type]), (STATE 1351, 2,
       [sym_comment, sym_documentation_comment]), (ACTIONS 2487, 7, [anon_sym_LT, anon_sym_GT,
       anon_sym_PIPE, anon_sym_AMP, anon_sym_GT_GT, anon_sym_as, anon_sym_async]), (ACTIONS 2479,
       20, [anon_sym_LBRACE, anon_sym_COMMA, anon_sym_QMARK_QMARK, sym_equality_operator,
       anon_sym_LT_EQ, anon_sym_GT_EQ, anon_sym_CARET, anon_sym_LT_LT, anon_sym_GT_GT_GT,
       sym__additive_operator, anon_sym_is, anon_sym_DOT_DOT, anon_sym_QMARK_DOT_DOT,
       anon_sym_SEMI, anon_sym_EQ_GT, anon_sym_async_STAR, anon_sym_sync_STAR, anon_sym_Function,
       anon_sym_AMP_AMP, anon_sym_PIPE_PIPE])])]"

lemma small_run_497: "small_run 1349 67588 ts_small_parse_table_497 1352 67765"
  by (simp add: small_simps ts_small_parse_table_497_def)

definition ts_small_parse_table_498 :: "small_group list" where
  "ts_small_parse_table_498 = [
     (67765, 12, [(ACTIONS 3, 1, [anon_sym_SLASH_SLASH]), (ACTIONS 5, 1,
       [anon_sym_SLASH_STAR]), (ACTIONS 7, 1, [anon_sym_SLASH_SLASH_SLASH]), (ACTIONS 9, 1,
       [sym__block_comment]), (ACTIONS 11, 1, [sym__documentation_block_comment]), (ACTIONS 3316,
       1, [anon_sym_LPAREN]), (ACTIONS 3368, 1, [anon_sym_QMARK]), (STATE 1492, 1,
       [sym_parameter_type_list]), (STATE 1541, 1, [sym_nullable_type]), (STATE 1352, 2,
       [sym_comment, sym_documentation_comment]), (ACTIONS 2515, 7, [anon_sym_LT, anon_sym_GT,
       anon_sym_PIPE, anon_sym_AMP, anon_sym_GT_GT, anon_sym_as, anon_sym_async]), (ACTIONS 2507,
       20, [anon_sym_LBRACE, anon_sym_COMMA, anon_sym_QMARK_QMARK, sym_equality_operator,
       anon_sym_LT_EQ, anon_sym_GT_EQ, anon_sym_CARET, anon_sym_LT_LT, anon_sym_GT_GT_GT,
       sym__additive_operator, anon_sym_is, anon_sym_DOT_DOT, anon_sym_QMARK_DOT_DOT,
       anon_sym_SEMI, anon_sym_EQ_GT, anon_sym_async_STAR, anon_sym_sync_STAR, anon_sym_Function,
       anon_sym_AMP_AMP, anon_sym_PIPE_PIPE])]),
     (67828, 12, [(ACTIONS 3, 1, [anon_sym_SLASH_SLASH]), (ACTIONS 5, 1,
       [anon_sym_SLASH_STAR]), (ACTIONS 7, 1, [anon_sym_SLASH_SLASH_SLASH]), (ACTIONS 9, 1,
       [sym__block_comment]), (ACTIONS 11, 1, [sym__documentation_block_comment]), (ACTIONS 3316,
       1, [anon_sym_LPAREN]), (ACTIONS 3371, 1, [anon_sym_QMARK]), (STATE 1492, 1,
       [sym_parameter_type_list]), (STATE 1541, 1, [sym_nullable_type]), (STATE 1353, 2,
       [sym_comment, sym_documentation_comment]), (ACTIONS 2528, 7, [anon_sym_LT, anon_sym_GT,
       anon_sym_PIPE, anon_sym_AMP, anon_sym_GT_GT, anon_sym_as, anon_sym_async]), (ACTIONS 2517,
       20, [anon_sym_LBRACE, anon_sym_COMMA, anon_sym_QMARK_QMARK, sym_equality_operator,
       anon_sym_LT_EQ, anon_sym_GT_EQ, anon_sym_CARET, anon_sym_LT_LT, anon_sym_GT_GT_GT,
       sym__additive_operator, anon_sym_is, anon_sym_DOT_DOT, anon_sym_QMARK_DOT_DOT,
       anon_sym_SEMI, anon_sym_EQ_GT, anon_sym_async_STAR, anon_sym_sync_STAR, anon_sym_Function,
       anon_sym_AMP_AMP, anon_sym_PIPE_PIPE])])]"

lemma small_run_498: "small_run 1352 67765 ts_small_parse_table_498 1354 67891"
  by (simp add: small_simps ts_small_parse_table_498_def)

definition ts_small_parse_table_499 :: "small_group list" where
  "ts_small_parse_table_499 = [
     (67891, 12, [(ACTIONS 3, 1, [anon_sym_SLASH_SLASH]), (ACTIONS 5, 1,
       [anon_sym_SLASH_STAR]), (ACTIONS 7, 1, [anon_sym_SLASH_SLASH_SLASH]), (ACTIONS 9, 1,
       [sym__block_comment]), (ACTIONS 11, 1, [sym__documentation_block_comment]), (ACTIONS 3316,
       1, [anon_sym_LPAREN]), (ACTIONS 3368, 1, [anon_sym_QMARK]), (STATE 1351, 1,
       [sym_nullable_type]), (STATE 1492, 1, [sym_parameter_type_list]), (STATE 1354, 2,
       [sym_comment, sym_documentation_comment]), (ACTIONS 2515, 7, [anon_sym_LT, anon_sym_GT,
       anon_sym_PIPE, anon_sym_AMP, anon_sym_GT_GT, anon_sym_as, anon_sym_async]), (ACTIONS 2507,
       20, [anon_sym_LBRACE, anon_sym_COMMA, anon_sym_QMARK_QMARK, sym_equality_operator,
       anon_sym_LT_EQ, anon_sym_GT_EQ, anon_sym_CARET, anon_sym_LT_LT, anon_sym_GT_GT_GT,
       sym__additive_operator, anon_sym_is, anon_sym_DOT_DOT, anon_sym_QMARK_DOT_DOT,
       anon_sym_SEMI, anon_sym_EQ_GT, anon_sym_async_STAR, anon_sym_sync_STAR, anon_sym_Function,
       anon_sym_AMP_AMP, anon_sym_PIPE_PIPE])]),
     (67954, 16, [(ACTIONS 3, 1, [anon_sym_SLASH_SLASH]), (ACTIONS 5, 1,
       [anon_sym_SLASH_STAR]), (ACTIONS 7, 1, [anon_sym_SLASH_SLASH_SLASH]), (ACTIONS 9, 1,
       [sym__block_comment]), (ACTIONS 11, 1, [sym__documentation_block_comment]), (STATE 275, 1,
       [sym__assignment_operator]), (STATE 1141, 1, [sym__cascade_subsection]), (STATE 1145, 1,
       [sym_index_selector]), (STATE 1478, 1, [aux_sym_cascade_section_repeat2]), (STATE 1593, 1,
       [sym__assignable_selector]), (STATE 1965, 1, [sym__cascade_assignment_section]), (STATE
       1138, 2, [sym_unconditional_assignable_selector, sym_conditional_assignable_selector]),
       (STATE 1355, 2, [sym_comment, sym_documentation_comment]), (ACTIONS 1071, 4,
       [anon_sym_QMARK, anon_sym_LT, anon_sym_DOT, anon_sym_QMARK_DOT]), (ACTIONS 1065, 5,
       [anon_sym_LBRACK, anon_sym_LPAREN, anon_sym_BANG, anon_sym_DOT_DOT,
       anon_sym_QMARK_DOT_DOT]), (ACTIONS 1069, 14, [anon_sym_EQ, anon_sym_PLUS_EQ,
       anon_sym_DASH_EQ, anon_sym_STAR_EQ, anon_sym_SLASH_EQ, anon_sym_PERCENT_EQ,
       anon_sym_TILDE_SLASH_EQ, anon_sym_LT_LT_EQ, anon_sym_GT_GT_EQ, anon_sym_GT_GT_GT_EQ,
       anon_sym_AMP_EQ, anon_sym_CARET_EQ, anon_sym_PIPE_EQ, anon_sym_QMARK_QMARK_EQ])])]"

lemma small_run_499: "small_run 1354 67891 ts_small_parse_table_499 1356 68025"
  by (simp add: small_simps ts_small_parse_table_499_def)

definition ts_small_parse_table_500 :: "small_group list" where
  "ts_small_parse_table_500 = [
     (68025, 8, [(ACTIONS 3, 1, [anon_sym_SLASH_SLASH]), (ACTIONS 5, 1, [anon_sym_SLASH_STAR]),
       (ACTIONS 7, 1, [anon_sym_SLASH_SLASH_SLASH]), (ACTIONS 9, 1, [sym__block_comment]),
       (ACTIONS 11, 1, [sym__documentation_block_comment]), (STATE 1356, 2, [sym_comment,
       sym_documentation_comment]), (ACTIONS 2739, 6, [anon_sym_QMARK, anon_sym_LT, anon_sym_GT,
       anon_sym_PIPE, anon_sym_AMP, anon_sym_GT_GT]), (ACTIONS 2737, 25, [anon_sym_RBRACE,
       anon_sym_COMMA, anon_sym_RBRACK, anon_sym_COLON, anon_sym_LPAREN, anon_sym_RPAREN,
       anon_sym_QMARK_QMARK, sym_equality_operator, anon_sym_LT_EQ, anon_sym_GT_EQ,
       anon_sym_CARET, anon_sym_LT_LT, anon_sym_GT_GT_GT, sym__additive_operator, anon_sym_is,
       anon_sym_as, anon_sym_DOT_DOT, anon_sym_QMARK_DOT_DOT, anon_sym_SEMI, anon_sym_EQ_GT,
       anon_sym_case, anon_sym_else, anon_sym_Function, anon_sym_AMP_AMP, anon_sym_PIPE_PIPE])]),
     (68080, 10, [(ACTIONS 3, 1, [anon_sym_SLASH_SLASH]), (ACTIONS 5, 1,
       [anon_sym_SLASH_STAR]), (ACTIONS 7, 1, [anon_sym_SLASH_SLASH_SLASH]), (ACTIONS 9, 1,
       [sym__block_comment]), (ACTIONS 11, 1, [sym__documentation_block_comment]), (ACTIONS 3375,
       1, [anon_sym_super]), (STATE 969, 1, [sym_super]), (STATE 1357, 2, [sym_comment,
       sym_documentation_comment]), (ACTIONS 3306, 13, [anon_sym_POUND, sym_hex_integer_literal,
       anon_sym_DQUOTE_DQUOTE_DQUOTE, anon_sym_SQUOTE_SQUOTE_SQUOTE,
       anon_sym_r_DQUOTE_DQUOTE_DQUOTE, anon_sym_r_SQUOTE_SQUOTE_SQUOTE, anon_sym_LBRACE,
       anon_sym_LBRACK, anon_sym_LPAREN, anon_sym_LT, sym_increment_operator, anon_sym_BANG,
       anon_sym_TILDE]), (ACTIONS 3304, 16, [sym_decimal_integer_literal,
       sym_decimal_floating_point_literal, anon_sym_true, anon_sym_false, anon_sym_DQUOTE,
       anon_sym_SQUOTE, anon_sym_r_DQUOTE, anon_sym_r_SQUOTE, anon_sym_null, sym_minus_operator,
       anon_sym_await, anon_sym_switch, anon_sym_new, sym_const_builtin, anon_sym_this,
       sym_identifier])]),
     (68139, 11, [(ACTIONS 3, 1, [anon_sym_SLASH_SLASH]), (ACTIONS 5, 1,
       [anon_sym_SLASH_STAR]), (ACTIONS 7, 1, [anon_sym_SLASH_SLASH_SLASH]), (ACTIONS 9, 1,
       [sym__block_comment]), (ACTIONS 11, 1, [sym__documentation_block_comment]), (ACTIONS 2548,
       1, [anon_sym_Function]), (ACTIONS 3377, 1, [anon_sym_QMARK]), (STATE 1423, 1,
       [sym_nullable_type]), (STATE 1358, 2, [sym_comment, sym_documentation_comment]), (ACTIONS
       2546, 5, [anon_sym_LT, anon_sym_GT, anon_sym_PIPE, anon_sym_AMP, anon_sym_GT_GT]),
       (ACTIONS 2541, 23, [anon_sym_RBRACE, anon_sym_COMMA, anon_sym_RBRACK, anon_sym_COLON,
       anon_sym_RPAREN, anon_sym_QMARK_QMARK, sym_equality_operator, anon_sym_LT_EQ,
       anon_sym_GT_EQ, anon_sym_CARET, anon_sym_LT_LT, anon_sym_GT_GT_GT, sym__additive_operator,
       anon_sym_is, anon_sym_as, anon_sym_DOT_DOT, anon_sym_QMARK_DOT_DOT, anon_sym_SEMI,
       anon_sym_EQ_GT, anon_sym_case, anon_sym_else, anon_sym_AMP_AMP, anon_sym_PIPE_PIPE])])]"

lemma small_run_500: "small_run 1356 68025 ts_small_parse_table_500 1359 68200"
  by (simp add: small_simps ts_small_parse_table_500_def)

definition ts_small_parse_table_501 :: "small_group list" where
  "ts_small_parse_table_501 = [
     (68200, 10, [(ACTIONS 3, 1, [anon_sym_SLASH_SLASH]), (ACTIONS 5, 1,
       [anon_sym_SLASH_STAR]), (ACTIONS 7, 1, [anon_sym_SLASH_SLASH_SLASH]), (ACTIONS 9, 1,
       [sym__block_comment]), (ACTIONS 11, 1, [sym__documentation_block_comment]), (ACTIONS 3380,
       1, [anon_sym_super]), (STATE 1154, 1, [sym_super]), (STATE 1359, 2, [sym_comment,
       sym_documentation_comment]), (ACTIONS 3306, 13, [anon_sym_POUND, sym_hex_integer_literal,
       anon_sym_DQUOTE_DQUOTE_DQUOTE, anon_sym_SQUOTE_SQUOTE_SQUOTE,
       anon_sym_r_DQUOTE_DQUOTE_DQUOTE, anon_sym_r_SQUOTE_SQUOTE_SQUOTE, anon_sym_LBRACE,
       anon_sym_LBRACK, anon_sym_LPAREN, anon_sym_LT, sym_increment_operator, anon_sym_BANG,
       anon_sym_TILDE]), (ACTIONS 3304, 16, [sym_decimal_integer_literal,
       sym_decimal_floating_point_literal, anon_sym_true, anon_sym_false, anon_sym_DQUOTE,
       anon_sym_SQUOTE, anon_sym_r_DQUOTE, anon_sym_r_SQUOTE, anon_sym_null, sym_minus_operator,
       anon_sym_await, anon_sym_switch, anon_sym_new, sym_const_builtin, anon_sym_this,
       sym_identifier])]),
     (68259, 8, [(ACTIONS 3, 1, [anon_sym_SLASH_SLASH]), (ACTIONS 5, 1, [anon_sym_SLASH_STAR]),
       (ACTIONS 7, 1, [anon_sym_SLASH_SLASH_SLASH]), (ACTIONS 9, 1, [sym__block_comment]),
       (ACTIONS 11, 1, [sym__documentation_block_comment]), (STATE 1360, 2, [sym_comment,
       sym_documentation_comment]), (ACTIONS 2710, 6, [anon_sym_QMARK, anon_sym_LT, anon_sym_GT,
       anon_sym_PIPE, anon_sym_AMP, anon_sym_GT_GT]), (ACTIONS 2708, 25, [anon_sym_RBRACE,
       anon_sym_COMMA, anon_sym_RBRACK, anon_sym_COLON, anon_sym_LPAREN, anon_sym_RPAREN,
       anon_sym_QMARK_QMARK, sym_equality_operator, anon_sym_LT_EQ, anon_sym_GT_EQ,
       anon_sym_CARET, anon_sym_LT_LT, anon_sym_GT_GT_GT, sym__additive_operator, anon_sym_is,
       anon_sym_as, anon_sym_DOT_DOT, anon_sym_QMARK_DOT_DOT, anon_sym_SEMI, anon_sym_EQ_GT,
       anon_sym_case, anon_sym_else, anon_sym_Function, anon_sym_AMP_AMP, anon_sym_PIPE_PIPE])]),
     (68314, 8, [(ACTIONS 3, 1, [anon_sym_SLASH_SLASH]), (ACTIONS 5, 1, [anon_sym_SLASH_STAR]),
       (ACTIONS 7, 1, [anon_sym_SLASH_SLASH_SLASH]), (ACTIONS 9, 1, [sym__block_comment]),
       (ACTIONS 11, 1, [sym__documentation_block_comment]), (STATE 1361, 2, [sym_comment,
       sym_documentation_comment]), (ACTIONS 3384, 3, [anon_sym_LPAREN, anon_sym_QMARK,
       anon_sym_AT]), (ACTIONS 3382, 28, [anon_sym_part, anon_sym_enum, anon_sym_final,
       anon_sym_inline, anon_sym_class, anon_sym_extension, sym_void_type, anon_sym_var,
       anon_sym_covariant, anon_sym_factory, anon_sym_Function, anon_sym_get, anon_sym_interface,
       anon_sym_base, anon_sym_abstract, anon_sym_sealed, anon_sym_operator, anon_sym_mixin,
       anon_sym_required, anon_sym_set, anon_sym_static, anon_sym_typedef, sym_const_builtin,
       anon_sym_late, anon_sym_external, anon_sym_this, anon_sym_super, sym_identifier])])]"

lemma small_run_501: "small_run 1359 68200 ts_small_parse_table_501 1362 68369"
  by (simp add: small_simps ts_small_parse_table_501_def)

definition ts_small_parse_table_502 :: "small_group list" where
  "ts_small_parse_table_502 = [
     (68369, 11, [(ACTIONS 3, 1, [anon_sym_SLASH_SLASH]), (ACTIONS 5, 1,
       [anon_sym_SLASH_STAR]), (ACTIONS 7, 1, [anon_sym_SLASH_SLASH_SLASH]), (ACTIONS 9, 1,
       [sym__block_comment]), (ACTIONS 11, 1, [sym__documentation_block_comment]), (ACTIONS 3386,
       1, [anon_sym_Function]), (STATE 1336, 1, [sym__function_builtin_identifier]), (STATE 1551,
       1, [sym__function_type_tail]), (STATE 1362, 3, [aux_sym__function_type_tails, sym_comment,
       sym_documentation_comment]), (ACTIONS 2444, 8, [anon_sym_QMARK, anon_sym_LT, anon_sym_GT,
       anon_sym_PIPE, anon_sym_AMP, anon_sym_GT_GT, anon_sym_as, anon_sym_async]), (ACTIONS 2442,
       19, [anon_sym_LBRACE, anon_sym_COMMA, anon_sym_QMARK_QMARK, sym_equality_operator,
       anon_sym_LT_EQ, anon_sym_GT_EQ, anon_sym_CARET, anon_sym_LT_LT, anon_sym_GT_GT_GT,
       sym__additive_operator, anon_sym_is, anon_sym_DOT_DOT, anon_sym_QMARK_DOT_DOT,
       anon_sym_SEMI, anon_sym_EQ_GT, anon_sym_async_STAR, anon_sym_sync_STAR, anon_sym_AMP_AMP,
       anon_sym_PIPE_PIPE])]),
     (68430, 12, [(ACTIONS 3, 1, [anon_sym_SLASH_SLASH]), (ACTIONS 5, 1,
       [anon_sym_SLASH_STAR]), (ACTIONS 7, 1, [anon_sym_SLASH_SLASH_SLASH]), (ACTIONS 9, 1,
       [sym__block_comment]), (ACTIONS 11, 1, [sym__documentation_block_comment]), (ACTIONS 3389,
       1, [anon_sym_Function]), (STATE 1336, 1, [sym__function_builtin_identifier]), (STATE 1362,
       1, [aux_sym__function_type_tails]), (STATE 1551, 1, [sym__function_type_tail]), (STATE
       1363, 2, [sym_comment, sym_documentation_comment]), (ACTIONS 2437, 8, [anon_sym_QMARK,
       anon_sym_LT, anon_sym_GT, anon_sym_PIPE, anon_sym_AMP, anon_sym_GT_GT, anon_sym_as,
       anon_sym_async]), (ACTIONS 2435, 19, [anon_sym_LBRACE, anon_sym_COMMA,
       anon_sym_QMARK_QMARK, sym_equality_operator, anon_sym_LT_EQ, anon_sym_GT_EQ,
       anon_sym_CARET, anon_sym_LT_LT, anon_sym_GT_GT_GT, sym__additive_operator, anon_sym_is,
       anon_sym_DOT_DOT, anon_sym_QMARK_DOT_DOT, anon_sym_SEMI, anon_sym_EQ_GT,
       anon_sym_async_STAR, anon_sym_sync_STAR, anon_sym_AMP_AMP, anon_sym_PIPE_PIPE])]),
     (68493, 8, [(ACTIONS 3, 1, [anon_sym_SLASH_SLASH]), (ACTIONS 5, 1, [anon_sym_SLASH_STAR]),
       (ACTIONS 7, 1, [anon_sym_SLASH_SLASH_SLASH]), (ACTIONS 9, 1, [sym__block_comment]),
       (ACTIONS 11, 1, [sym__documentation_block_comment]), (STATE 1364, 2, [sym_comment,
       sym_documentation_comment]), (ACTIONS 2747, 6, [anon_sym_QMARK, anon_sym_LT, anon_sym_GT,
       anon_sym_PIPE, anon_sym_AMP, anon_sym_GT_GT]), (ACTIONS 2745, 25, [anon_sym_RBRACE,
       anon_sym_COMMA, anon_sym_RBRACK, anon_sym_COLON, anon_sym_LPAREN, anon_sym_RPAREN,
       anon_sym_QMARK_QMARK, sym_equality_operator, anon_sym_LT_EQ, anon_sym_GT_EQ,
       anon_sym_CARET, anon_sym_LT_LT, anon_sym_GT_GT_GT, sym__additive_operator, anon_sym_is,
       anon_sym_as, anon_sym_DOT_DOT, anon_sym_QMARK_DOT_DOT, anon_sym_SEMI, anon_sym_EQ_GT,
       anon_sym_case, anon_sym_else, anon_sym_Function, anon_sym_AMP_AMP, anon_sym_PIPE_PIPE])])]"

lemma small_run_502: "small_run 1362 68369 ts_small_parse_table_502 1365 68548"
  by (simp add: small_simps ts_small_parse_table_502_def)

definition ts_small_parse_table_503 :: "small_group list" where
  "ts_small_parse_table_503 = [
     (68548, 16, [(ACTIONS 3, 1, [anon_sym_SLASH_SLASH]), (ACTIONS 5, 1,
       [anon_sym_SLASH_STAR]), (ACTIONS 7, 1, [anon_sym_SLASH_SLASH_SLASH]), (ACTIONS 9, 1,
       [sym__block_comment]), (ACTIONS 11, 1, [sym__documentation_block_comment]), (STATE 275, 1,
       [sym__assignment_operator]), (STATE 1141, 1, [sym__cascade_subsection]), (STATE 1145, 1,
       [sym_index_selector]), (STATE 1478, 1, [aux_sym_cascade_section_repeat2]), (STATE 1593, 1,
       [sym__assignable_selector]), (STATE 1963, 1, [sym__cascade_assignment_section]), (STATE
       1138, 2, [sym_unconditional_assignable_selector, sym_conditional_assignable_selector]),
       (STATE 1365, 2, [sym_comment, sym_documentation_comment]), (ACTIONS 1155, 4,
       [anon_sym_QMARK, anon_sym_LT, anon_sym_DOT, anon_sym_QMARK_DOT]), (ACTIONS 1153, 5,
       [anon_sym_LBRACK, anon_sym_LPAREN, anon_sym_BANG, anon_sym_DOT_DOT,
       anon_sym_QMARK_DOT_DOT]), (ACTIONS 1069, 14, [anon_sym_EQ, anon_sym_PLUS_EQ,
       anon_sym_DASH_EQ, anon_sym_STAR_EQ, anon_sym_SLASH_EQ, anon_sym_PERCENT_EQ,
       anon_sym_TILDE_SLASH_EQ, anon_sym_LT_LT_EQ, anon_sym_GT_GT_EQ, anon_sym_GT_GT_GT_EQ,
       anon_sym_AMP_EQ, anon_sym_CARET_EQ, anon_sym_PIPE_EQ, anon_sym_QMARK_QMARK_EQ])]),
     (68619, 12, [(ACTIONS 3, 1, [anon_sym_SLASH_SLASH]), (ACTIONS 5, 1,
       [anon_sym_SLASH_STAR]), (ACTIONS 7, 1, [anon_sym_SLASH_SLASH_SLASH]), (ACTIONS 9, 1,
       [sym__block_comment]), (ACTIONS 11, 1, [sym__documentation_block_comment]), (ACTIONS 3389,
       1, [anon_sym_Function]), (STATE 1336, 1, [sym__function_builtin_identifier]), (STATE 1362,
       1, [aux_sym__function_type_tails]), (STATE 1551, 1, [sym__function_type_tail]), (STATE
       1366, 2, [sym_comment, sym_documentation_comment]), (ACTIONS 2415, 8, [anon_sym_QMARK,
       anon_sym_LT, anon_sym_GT, anon_sym_PIPE, anon_sym_AMP, anon_sym_GT_GT, anon_sym_as,
       anon_sym_async]), (ACTIONS 2413, 19, [anon_sym_LBRACE, anon_sym_COMMA,
       anon_sym_QMARK_QMARK, sym_equality_operator, anon_sym_LT_EQ, anon_sym_GT_EQ,
       anon_sym_CARET, anon_sym_LT_LT, anon_sym_GT_GT_GT, sym__additive_operator, anon_sym_is,
       anon_sym_DOT_DOT, anon_sym_QMARK_DOT_DOT, anon_sym_SEMI, anon_sym_EQ_GT,
       anon_sym_async_STAR, anon_sym_sync_STAR, anon_sym_AMP_AMP, anon_sym_PIPE_PIPE])])]"

lemma small_run_503: "small_run 1365 68548 ts_small_parse_table_503 1367 68682"
  by (simp add: small_simps ts_small_parse_table_503_def)

definition ts_small_parse_table_504 :: "small_group list" where
  "ts_small_parse_table_504 = [
     (68682, 8, [(ACTIONS 3, 1, [anon_sym_SLASH_SLASH]), (ACTIONS 5, 1, [anon_sym_SLASH_STAR]),
       (ACTIONS 7, 1, [anon_sym_SLASH_SLASH_SLASH]), (ACTIONS 9, 1, [sym__block_comment]),
       (ACTIONS 11, 1, [sym__documentation_block_comment]), (STATE 1367, 2, [sym_comment,
       sym_documentation_comment]), (ACTIONS 2640, 6, [anon_sym_QMARK, anon_sym_LT, anon_sym_GT,
       anon_sym_PIPE, anon_sym_AMP, anon_sym_GT_GT]), (ACTIONS 2638, 25, [anon_sym_RBRACE,
       anon_sym_COMMA, anon_sym_RBRACK, anon_sym_COLON, anon_sym_LPAREN, anon_sym_RPAREN,
       anon_sym_QMARK_QMARK, sym_equality_operator, anon_sym_LT_EQ, anon_sym_GT_EQ,
       anon_sym_CARET, anon_sym_LT_LT, anon_sym_GT_GT_GT, sym__additive_operator, anon_sym_is,
       anon_sym_as, anon_sym_DOT_DOT, anon_sym_QMARK_DOT_DOT, anon_sym_SEMI, anon_sym_EQ_GT,
       anon_sym_case, anon_sym_else, anon_sym_Function, anon_sym_AMP_AMP, anon_sym_PIPE_PIPE])]),
     (68737, 10, [(ACTIONS 3, 1, [anon_sym_SLASH_SLASH]), (ACTIONS 5, 1,
       [anon_sym_SLASH_STAR]), (ACTIONS 7, 1, [anon_sym_SLASH_SLASH_SLASH]), (ACTIONS 9, 1,
       [sym__block_comment]), (ACTIONS 11, 1, [sym__documentation_block_comment]), (ACTIONS 3391,
       1, [anon_sym_QMARK]), (STATE 1406, 1, [sym_nullable_type]), (STATE 1368, 2, [sym_comment,
       sym_documentation_comment]), (ACTIONS 2572, 5, [anon_sym_LT, anon_sym_GT, anon_sym_PIPE,
       anon_sym_AMP, anon_sym_GT_GT]), (ACTIONS 2567, 24, [anon_sym_RBRACE, anon_sym_COMMA,
       anon_sym_RBRACK, anon_sym_COLON, anon_sym_RPAREN, anon_sym_QMARK_QMARK,
       sym_equality_operator, anon_sym_LT_EQ, anon_sym_GT_EQ, anon_sym_CARET, anon_sym_LT_LT,
       anon_sym_GT_GT_GT, sym__additive_operator, anon_sym_is, anon_sym_as, anon_sym_DOT_DOT,
       anon_sym_QMARK_DOT_DOT, anon_sym_SEMI, anon_sym_EQ_GT, anon_sym_case, anon_sym_else,
       anon_sym_Function, anon_sym_AMP_AMP, anon_sym_PIPE_PIPE])]),
     (68796, 10, [(ACTIONS 3, 1, [anon_sym_SLASH_SLASH]), (ACTIONS 5, 1,
       [anon_sym_SLASH_STAR]), (ACTIONS 7, 1, [anon_sym_SLASH_SLASH_SLASH]), (ACTIONS 9, 1,
       [sym__block_comment]), (ACTIONS 11, 1, [sym__documentation_block_comment]), (ACTIONS 3256,
       1, [anon_sym_QMARK]), (STATE 1430, 1, [sym_nullable_type]), (STATE 1369, 2, [sym_comment,
       sym_documentation_comment]), (ACTIONS 2515, 5, [anon_sym_LT, anon_sym_GT, anon_sym_PIPE,
       anon_sym_AMP, anon_sym_GT_GT]), (ACTIONS 2507, 24, [anon_sym_RBRACE, anon_sym_COMMA,
       anon_sym_RBRACK, anon_sym_COLON, anon_sym_RPAREN, anon_sym_QMARK_QMARK,
       sym_equality_operator, anon_sym_LT_EQ, anon_sym_GT_EQ, anon_sym_CARET, anon_sym_LT_LT,
       anon_sym_GT_GT_GT, sym__additive_operator, anon_sym_is, anon_sym_as, anon_sym_DOT_DOT,
       anon_sym_QMARK_DOT_DOT, anon_sym_SEMI, anon_sym_EQ_GT, anon_sym_case, anon_sym_else,
       anon_sym_Function, anon_sym_AMP_AMP, anon_sym_PIPE_PIPE])])]"

lemma small_run_504: "small_run 1367 68682 ts_small_parse_table_504 1370 68855"
  by (simp add: small_simps ts_small_parse_table_504_def)

definition ts_small_parse_table_505 :: "small_group list" where
  "ts_small_parse_table_505 = [
     (68855, 8, [(ACTIONS 3, 1, [anon_sym_SLASH_SLASH]), (ACTIONS 5, 1, [anon_sym_SLASH_STAR]),
       (ACTIONS 7, 1, [anon_sym_SLASH_SLASH_SLASH]), (ACTIONS 9, 1, [sym__block_comment]),
       (ACTIONS 11, 1, [sym__documentation_block_comment]), (STATE 1370, 2, [sym_comment,
       sym_documentation_comment]), (ACTIONS 3396, 3, [anon_sym_LPAREN, anon_sym_QMARK,
       anon_sym_AT]), (ACTIONS 3394, 28, [anon_sym_part, anon_sym_enum, anon_sym_final,
       anon_sym_inline, anon_sym_class, anon_sym_extension, sym_void_type, anon_sym_var,
       anon_sym_covariant, anon_sym_factory, anon_sym_Function, anon_sym_get, anon_sym_interface,
       anon_sym_base, anon_sym_abstract, anon_sym_sealed, anon_sym_operator, anon_sym_mixin,
       anon_sym_required, anon_sym_set, anon_sym_static, anon_sym_typedef, sym_const_builtin,
       anon_sym_late, anon_sym_external, anon_sym_this, anon_sym_super, sym_identifier])]),
     (68910, 13, [(ACTIONS 3, 1, [anon_sym_SLASH_SLASH]), (ACTIONS 5, 1,
       [anon_sym_SLASH_STAR]), (ACTIONS 7, 1, [anon_sym_SLASH_SLASH_SLASH]), (ACTIONS 9, 1,
       [sym__block_comment]), (ACTIONS 11, 1, [sym__documentation_block_comment]), (ACTIONS 3161,
       1, [anon_sym_LT]), (ACTIONS 3398, 1, [anon_sym_LPAREN]), (ACTIONS 3400, 1,
       [anon_sym_DOT]), (STATE 1611, 1, [sym_arguments]), (STATE 3145, 1, [sym_type_arguments]),
       (ACTIONS 3159, 2, [anon_sym_AT, sym_part_of_builtin]), (STATE 1371, 2, [sym_comment,
       sym_documentation_comment]), (ACTIONS 3155, 24, [anon_sym_part, anon_sym_enum,
       anon_sym_final, anon_sym_inline, anon_sym_class, anon_sym_extension, sym_void_type,
       anon_sym_var, anon_sym_library, anon_sym_export, anon_sym_Function, anon_sym_get,
       anon_sym_import, anon_sym_interface, anon_sym_base, anon_sym_abstract, anon_sym_sealed,
       anon_sym_mixin, anon_sym_set, anon_sym_typedef, sym_const_builtin, anon_sym_late,
       anon_sym_external, sym_identifier])]),
     (68975, 8, [(ACTIONS 3, 1, [anon_sym_SLASH_SLASH]), (ACTIONS 5, 1, [anon_sym_SLASH_STAR]),
       (ACTIONS 7, 1, [anon_sym_SLASH_SLASH_SLASH]), (ACTIONS 9, 1, [sym__block_comment]),
       (ACTIONS 11, 1, [sym__documentation_block_comment]), (STATE 1372, 2, [sym_comment,
       sym_documentation_comment]), (ACTIONS 3404, 3, [anon_sym_LPAREN, anon_sym_QMARK,
       anon_sym_AT]), (ACTIONS 3402, 28, [anon_sym_part, anon_sym_enum, anon_sym_final,
       anon_sym_inline, anon_sym_class, anon_sym_extension, sym_void_type, anon_sym_var,
       anon_sym_covariant, anon_sym_factory, anon_sym_Function, anon_sym_get, anon_sym_interface,
       anon_sym_base, anon_sym_abstract, anon_sym_sealed, anon_sym_operator, anon_sym_mixin,
       anon_sym_required, anon_sym_set, anon_sym_static, anon_sym_typedef, sym_const_builtin,
       anon_sym_late, anon_sym_external, anon_sym_this, anon_sym_super, sym_identifier])])]"

lemma small_run_505: "small_run 1370 68855 ts_small_parse_table_505 1373 69030"
  by (simp add: small_simps ts_small_parse_table_505_def)

definition ts_small_parse_table_506 :: "small_group list" where
  "ts_small_parse_table_506 = [
     (69030, 8, [(ACTIONS 3, 1, [anon_sym_SLASH_SLASH]), (ACTIONS 5, 1, [anon_sym_SLASH_STAR]),
       (ACTIONS 7, 1, [anon_sym_SLASH_SLASH_SLASH]), (ACTIONS 9, 1, [sym__block_comment]),
       (ACTIONS 11, 1, [sym__documentation_block_comment]), (STATE 1373, 2, [sym_comment,
       sym_documentation_comment]), (ACTIONS 2499, 9, [anon_sym_QMARK, anon_sym_LT, anon_sym_GT,
       anon_sym_PIPE, anon_sym_AMP, anon_sym_GT_GT, anon_sym_SLASH, anon_sym_as,
       anon_sym_async]), (ACTIONS 2497, 22, [anon_sym_LBRACE, anon_sym_COMMA,
       anon_sym_QMARK_QMARK, sym_equality_operator, anon_sym_LT_EQ, anon_sym_GT_EQ,
       anon_sym_CARET, anon_sym_LT_LT, anon_sym_GT_GT_GT, sym__additive_operator, anon_sym_STAR,
       anon_sym_PERCENT, anon_sym_TILDE_SLASH, anon_sym_is, anon_sym_DOT_DOT,
       anon_sym_QMARK_DOT_DOT, anon_sym_SEMI, anon_sym_EQ_GT, anon_sym_async_STAR,
       anon_sym_sync_STAR, anon_sym_AMP_AMP, anon_sym_PIPE_PIPE])]),
     (69085, 8, [(ACTIONS 3, 1, [anon_sym_SLASH_SLASH]), (ACTIONS 5, 1, [anon_sym_SLASH_STAR]),
       (ACTIONS 7, 1, [anon_sym_SLASH_SLASH_SLASH]), (ACTIONS 9, 1, [sym__block_comment]),
       (ACTIONS 11, 1, [sym__documentation_block_comment]), (STATE 1374, 2, [sym_comment,
       sym_documentation_comment]), (ACTIONS 1819, 3, [anon_sym_LPAREN, anon_sym_QMARK,
       anon_sym_AT]), (ACTIONS 1821, 28, [anon_sym_part, anon_sym_enum, anon_sym_final,
       anon_sym_inline, anon_sym_class, anon_sym_extension, sym_void_type, anon_sym_var,
       anon_sym_covariant, anon_sym_factory, anon_sym_Function, anon_sym_get, anon_sym_interface,
       anon_sym_base, anon_sym_abstract, anon_sym_sealed, anon_sym_operator, anon_sym_mixin,
       anon_sym_required, anon_sym_set, anon_sym_static, anon_sym_typedef, sym_const_builtin,
       anon_sym_late, anon_sym_external, anon_sym_this, anon_sym_super, sym_identifier])]),
     (69140, 10, [(ACTIONS 3, 1, [anon_sym_SLASH_SLASH]), (ACTIONS 5, 1,
       [anon_sym_SLASH_STAR]), (ACTIONS 7, 1, [anon_sym_SLASH_SLASH_SLASH]), (ACTIONS 9, 1,
       [sym__block_comment]), (ACTIONS 11, 1, [sym__documentation_block_comment]), (ACTIONS 3283,
       1, [anon_sym_QMARK]), (STATE 1439, 1, [sym_nullable_type]), (STATE 1375, 2, [sym_comment,
       sym_documentation_comment]), (ACTIONS 2487, 5, [anon_sym_LT, anon_sym_GT, anon_sym_PIPE,
       anon_sym_AMP, anon_sym_GT_GT]), (ACTIONS 2479, 24, [anon_sym_RBRACE, anon_sym_COMMA,
       anon_sym_RBRACK, anon_sym_COLON, anon_sym_RPAREN, anon_sym_QMARK_QMARK,
       sym_equality_operator, anon_sym_LT_EQ, anon_sym_GT_EQ, anon_sym_CARET, anon_sym_LT_LT,
       anon_sym_GT_GT_GT, sym__additive_operator, anon_sym_is, anon_sym_as, anon_sym_DOT_DOT,
       anon_sym_QMARK_DOT_DOT, anon_sym_SEMI, anon_sym_EQ_GT, anon_sym_case, anon_sym_else,
       anon_sym_Function, anon_sym_AMP_AMP, anon_sym_PIPE_PIPE])])]"

lemma small_run_506: "small_run 1373 69030 ts_small_parse_table_506 1376 69199"
  by (simp add: small_simps ts_small_parse_table_506_def)

definition ts_small_parse_table_507 :: "small_group list" where
  "ts_small_parse_table_507 = [
     (69199, 8, [(ACTIONS 3, 1, [anon_sym_SLASH_SLASH]), (ACTIONS 5, 1, [anon_sym_SLASH_STAR]),
       (ACTIONS 7, 1, [anon_sym_SLASH_SLASH_SLASH]), (ACTIONS 9, 1, [sym__block_comment]),
       (ACTIONS 11, 1, [sym__documentation_block_comment]), (STATE 1376, 2, [sym_comment,
       sym_documentation_comment]), (ACTIONS 1879, 3, [anon_sym_LPAREN, anon_sym_QMARK,
       anon_sym_AT]), (ACTIONS 1881, 28, [anon_sym_part, anon_sym_enum, anon_sym_final,
       anon_sym_inline, anon_sym_class, anon_sym_extension, sym_void_type, anon_sym_var,
       anon_sym_covariant, anon_sym_factory, anon_sym_Function, anon_sym_get, anon_sym_interface,
       anon_sym_base, anon_sym_abstract, anon_sym_sealed, anon_sym_operator, anon_sym_mixin,
       anon_sym_required, anon_sym_set, anon_sym_static, anon_sym_typedef, sym_const_builtin,
       anon_sym_late, anon_sym_external, anon_sym_this, anon_sym_super, sym_identifier])]),
     (69254, 10, [(ACTIONS 3, 1, [anon_sym_SLASH_SLASH]), (ACTIONS 5, 1,
       [anon_sym_SLASH_STAR]), (ACTIONS 7, 1, [anon_sym_SLASH_SLASH_SLASH]), (ACTIONS 9, 1,
       [sym__block_comment]), (ACTIONS 11, 1, [sym__documentation_block_comment]), (ACTIONS 2577,
       1, [sym__additive_operator]), (STATE 328, 1, [sym_additive_operator]), (STATE 1377, 3,
       [sym_comment, sym_documentation_comment, aux_sym_additive_expression_repeat1]), (ACTIONS
       1355, 6, [anon_sym_QMARK, anon_sym_LT, anon_sym_GT, anon_sym_PIPE, anon_sym_AMP,
       anon_sym_GT_GT]), (ACTIONS 1353, 22, [anon_sym_RBRACE, anon_sym_COMMA, anon_sym_RBRACK,
       anon_sym_COLON, anon_sym_RPAREN, anon_sym_QMARK_QMARK, sym_equality_operator,
       anon_sym_LT_EQ, anon_sym_GT_EQ, anon_sym_CARET, anon_sym_LT_LT, anon_sym_GT_GT_GT,
       anon_sym_is, anon_sym_as, anon_sym_DOT_DOT, anon_sym_QMARK_DOT_DOT, anon_sym_SEMI,
       anon_sym_EQ_GT, anon_sym_case, anon_sym_else, anon_sym_AMP_AMP, anon_sym_PIPE_PIPE])]),
     (69313, 8, [(ACTIONS 3, 1, [anon_sym_SLASH_SLASH]), (ACTIONS 5, 1, [anon_sym_SLASH_STAR]),
       (ACTIONS 7, 1, [anon_sym_SLASH_SLASH_SLASH]), (ACTIONS 9, 1, [sym__block_comment]),
       (ACTIONS 11, 1, [sym__documentation_block_comment]), (STATE 1378, 2, [sym_comment,
       sym_documentation_comment]), (ACTIONS 2130, 9, [anon_sym_QMARK, anon_sym_LT, anon_sym_GT,
       anon_sym_PIPE, anon_sym_AMP, anon_sym_GT_GT, anon_sym_SLASH, anon_sym_as,
       anon_sym_async]), (ACTIONS 2128, 22, [anon_sym_LBRACE, anon_sym_COMMA,
       anon_sym_QMARK_QMARK, sym_equality_operator, anon_sym_LT_EQ, anon_sym_GT_EQ,
       anon_sym_CARET, anon_sym_LT_LT, anon_sym_GT_GT_GT, sym__additive_operator, anon_sym_STAR,
       anon_sym_PERCENT, anon_sym_TILDE_SLASH, anon_sym_is, anon_sym_DOT_DOT,
       anon_sym_QMARK_DOT_DOT, anon_sym_SEMI, anon_sym_EQ_GT, anon_sym_async_STAR,
       anon_sym_sync_STAR, anon_sym_AMP_AMP, anon_sym_PIPE_PIPE])])]"

lemma small_run_507: "small_run 1376 69199 ts_small_parse_table_507 1379 69368"
  by (simp add: small_simps ts_small_parse_table_507_def)

definition ts_small_parse_table_508 :: "small_group list" where
  "ts_small_parse_table_508 = [
     (69368, 8, [(ACTIONS 3, 1, [anon_sym_SLASH_SLASH]), (ACTIONS 5, 1, [anon_sym_SLASH_STAR]),
       (ACTIONS 7, 1, [anon_sym_SLASH_SLASH_SLASH]), (ACTIONS 9, 1, [sym__block_comment]),
       (ACTIONS 11, 1, [sym__documentation_block_comment]), (STATE 1379, 2, [sym_comment,
       sym_documentation_comment]), (ACTIONS 2926, 9, [anon_sym_QMARK, anon_sym_LT, anon_sym_GT,
       anon_sym_PIPE, anon_sym_AMP, anon_sym_GT_GT, anon_sym_SLASH, anon_sym_as,
       anon_sym_async]), (ACTIONS 2924, 22, [anon_sym_LBRACE, anon_sym_COMMA,
       anon_sym_QMARK_QMARK, sym_equality_operator, anon_sym_LT_EQ, anon_sym_GT_EQ,
       anon_sym_CARET, anon_sym_LT_LT, anon_sym_GT_GT_GT, sym__additive_operator, anon_sym_STAR,
       anon_sym_PERCENT, anon_sym_TILDE_SLASH, anon_sym_is, anon_sym_DOT_DOT,
       anon_sym_QMARK_DOT_DOT, anon_sym_SEMI, anon_sym_EQ_GT, anon_sym_async_STAR,
       anon_sym_sync_STAR, anon_sym_AMP_AMP, anon_sym_PIPE_PIPE])]),
     (69423, 8, [(ACTIONS 3, 1, [anon_sym_SLASH_SLASH]), (ACTIONS 5, 1, [anon_sym_SLASH_STAR]),
       (ACTIONS 7, 1, [anon_sym_SLASH_SLASH_SLASH]), (ACTIONS 9, 1, [sym__block_comment]),
       (ACTIONS 11, 1, [sym__documentation_block_comment]), (STATE 1380, 2, [sym_comment,
       sym_documentation_comment]), (ACTIONS 1674, 9, [anon_sym_QMARK, anon_sym_LT, anon_sym_GT,
       anon_sym_PIPE, anon_sym_AMP, anon_sym_GT_GT, anon_sym_SLASH, anon_sym_as,
       anon_sym_async]), (ACTIONS 1676, 22, [anon_sym_LBRACE, anon_sym_COMMA,
       anon_sym_QMARK_QMARK, sym_equality_operator, anon_sym_LT_EQ, anon_sym_GT_EQ,
       anon_sym_CARET, anon_sym_LT_LT, anon_sym_GT_GT_GT, sym__additive_operator, anon_sym_STAR,
       anon_sym_PERCENT, anon_sym_TILDE_SLASH, anon_sym_is, anon_sym_DOT_DOT,
       anon_sym_QMARK_DOT_DOT, anon_sym_SEMI, anon_sym_EQ_GT, anon_sym_async_STAR,
       anon_sym_sync_STAR, anon_sym_AMP_AMP, anon_sym_PIPE_PIPE])]),
     (69478, 8, [(ACTIONS 3, 1, [anon_sym_SLASH_SLASH]), (ACTIONS 5, 1, [anon_sym_SLASH_STAR]),
       (ACTIONS 7, 1, [anon_sym_SLASH_SLASH_SLASH]), (ACTIONS 9, 1, [sym__block_comment]),
       (ACTIONS 11, 1, [sym__documentation_block_comment]), (STATE 1381, 2, [sym_comment,
       sym_documentation_comment]), (ACTIONS 3018, 9, [anon_sym_QMARK, anon_sym_LT, anon_sym_GT,
       anon_sym_PIPE, anon_sym_AMP, anon_sym_GT_GT, anon_sym_SLASH, anon_sym_as,
       anon_sym_async]), (ACTIONS 3016, 22, [anon_sym_LBRACE, anon_sym_COMMA,
       anon_sym_QMARK_QMARK, sym_equality_operator, anon_sym_LT_EQ, anon_sym_GT_EQ,
       anon_sym_CARET, anon_sym_LT_LT, anon_sym_GT_GT_GT, sym__additive_operator, anon_sym_STAR,
       anon_sym_PERCENT, anon_sym_TILDE_SLASH, anon_sym_is, anon_sym_DOT_DOT,
       anon_sym_QMARK_DOT_DOT, anon_sym_SEMI, anon_sym_EQ_GT, anon_sym_async_STAR,
       anon_sym_sync_STAR, anon_sym_AMP_AMP, anon_sym_PIPE_PIPE])])]"

lemma small_run_508: "small_run 1379 69368 ts_small_parse_table_508 1382 69533"
  by (simp add: small_simps ts_small_parse_table_508_def)

definition ts_small_parse_table_509 :: "small_group list" where
  "ts_small_parse_table_509 = [
     (69533, 8, [(ACTIONS 3, 1, [anon_sym_SLASH_SLASH]), (ACTIONS 5, 1, [anon_sym_SLASH_STAR]),
       (ACTIONS 7, 1, [anon_sym_SLASH_SLASH_SLASH]), (ACTIONS 9, 1, [sym__block_comment]),
       (ACTIONS 11, 1, [sym__documentation_block_comment]), (STATE 1382, 2, [sym_comment,
       sym_documentation_comment]), (ACTIONS 3022, 9, [anon_sym_QMARK, anon_sym_LT, anon_sym_GT,
       anon_sym_PIPE, anon_sym_AMP, anon_sym_GT_GT, anon_sym_SLASH, anon_sym_as,
       anon_sym_async]), (ACTIONS 3020, 22, [anon_sym_LBRACE, anon_sym_COMMA,
       anon_sym_QMARK_QMARK, sym_equality_operator, anon_sym_LT_EQ, anon_sym_GT_EQ,
       anon_sym_CARET, anon_sym_LT_LT, anon_sym_GT_GT_GT, sym__additive_operator, anon_sym_STAR,
       anon_sym_PERCENT, anon_sym_TILDE_SLASH, anon_sym_is, anon_sym_DOT_DOT,
       anon_sym_QMARK_DOT_DOT, anon_sym_SEMI, anon_sym_EQ_GT, anon_sym_async_STAR,
       anon_sym_sync_STAR, anon_sym_AMP_AMP, anon_sym_PIPE_PIPE])]),
     (69588, 10, [(ACTIONS 3, 1, [anon_sym_SLASH_SLASH]), (ACTIONS 5, 1,
       [anon_sym_SLASH_STAR]), (ACTIONS 7, 1, [anon_sym_SLASH_SLASH_SLASH]), (ACTIONS 9, 1,
       [sym__block_comment]), (ACTIONS 11, 1, [sym__documentation_block_comment]), (ACTIONS 2574,
       1, [anon_sym_AMP_AMP]), (STATE 330, 1, [sym_logical_and_operator]), (STATE 1383, 3,
       [sym_comment, sym_documentation_comment, aux_sym_logical_and_expression_repeat1]),
       (ACTIONS 1434, 6, [anon_sym_QMARK, anon_sym_LT, anon_sym_GT, anon_sym_PIPE, anon_sym_AMP,
       anon_sym_GT_GT]), (ACTIONS 1432, 22, [anon_sym_RBRACE, anon_sym_COMMA, anon_sym_RBRACK,
       anon_sym_COLON, anon_sym_RPAREN, anon_sym_QMARK_QMARK, sym_equality_operator,
       anon_sym_LT_EQ, anon_sym_GT_EQ, anon_sym_CARET, anon_sym_LT_LT, anon_sym_GT_GT_GT,
       sym__additive_operator, anon_sym_is, anon_sym_as, anon_sym_DOT_DOT,
       anon_sym_QMARK_DOT_DOT, anon_sym_SEMI, anon_sym_EQ_GT, anon_sym_case, anon_sym_else,
       anon_sym_PIPE_PIPE])]),
     (69647, 10, [(ACTIONS 3, 1, [anon_sym_SLASH_SLASH]), (ACTIONS 5, 1,
       [anon_sym_SLASH_STAR]), (ACTIONS 7, 1, [anon_sym_SLASH_SLASH_SLASH]), (ACTIONS 9, 1,
       [sym__block_comment]), (ACTIONS 11, 1, [sym__documentation_block_comment]), (ACTIONS 2564,
       1, [anon_sym_PIPE_PIPE]), (STATE 332, 1, [sym_logical_or_operator]), (STATE 1384, 3,
       [sym_comment, sym_documentation_comment, aux_sym_logical_or_expression_repeat1]), (ACTIONS
       1416, 6, [anon_sym_QMARK, anon_sym_LT, anon_sym_GT, anon_sym_PIPE, anon_sym_AMP,
       anon_sym_GT_GT]), (ACTIONS 1414, 22, [anon_sym_RBRACE, anon_sym_COMMA, anon_sym_RBRACK,
       anon_sym_COLON, anon_sym_RPAREN, anon_sym_QMARK_QMARK, sym_equality_operator,
       anon_sym_LT_EQ, anon_sym_GT_EQ, anon_sym_CARET, anon_sym_LT_LT, anon_sym_GT_GT_GT,
       sym__additive_operator, anon_sym_is, anon_sym_as, anon_sym_DOT_DOT,
       anon_sym_QMARK_DOT_DOT, anon_sym_SEMI, anon_sym_EQ_GT, anon_sym_case, anon_sym_else,
       anon_sym_AMP_AMP])])]"

lemma small_run_509: "small_run 1382 69533 ts_small_parse_table_509 1385 69706"
  by (simp add: small_simps ts_small_parse_table_509_def)

definition ts_small_parse_table_510 :: "small_group list" where
  "ts_small_parse_table_510 = [
     (69706, 10, [(ACTIONS 3, 1, [anon_sym_SLASH_SLASH]), (ACTIONS 5, 1,
       [anon_sym_SLASH_STAR]), (ACTIONS 7, 1, [anon_sym_SLASH_SLASH_SLASH]), (ACTIONS 9, 1,
       [sym__block_comment]), (ACTIONS 11, 1, [sym__documentation_block_comment]), (ACTIONS 161,
       1, [anon_sym_super]), (STATE 1315, 1, [sym_super]), (STATE 1385, 2, [sym_comment,
       sym_documentation_comment]), (ACTIONS 3306, 13, [anon_sym_POUND, sym_hex_integer_literal,
       anon_sym_DQUOTE_DQUOTE_DQUOTE, anon_sym_SQUOTE_SQUOTE_SQUOTE,
       anon_sym_r_DQUOTE_DQUOTE_DQUOTE, anon_sym_r_SQUOTE_SQUOTE_SQUOTE, anon_sym_LBRACE,
       anon_sym_LBRACK, anon_sym_LPAREN, anon_sym_LT, sym_increment_operator, anon_sym_BANG,
       anon_sym_TILDE]), (ACTIONS 3304, 16, [sym_decimal_integer_literal,
       sym_decimal_floating_point_literal, anon_sym_true, anon_sym_false, anon_sym_DQUOTE,
       anon_sym_SQUOTE, anon_sym_r_DQUOTE, anon_sym_r_SQUOTE, anon_sym_null, sym_minus_operator,
       anon_sym_await, anon_sym_switch, anon_sym_new, sym_const_builtin, anon_sym_this,
       sym_identifier])]),
     (69765, 10, [(ACTIONS 3, 1, [anon_sym_SLASH_SLASH]), (ACTIONS 5, 1,
       [anon_sym_SLASH_STAR]), (ACTIONS 7, 1, [anon_sym_SLASH_SLASH_SLASH]), (ACTIONS 9, 1,
       [sym__block_comment]), (ACTIONS 11, 1, [sym__documentation_block_comment]), (STATE 328, 1,
       [sym_additive_operator]), (STATE 1377, 1, [aux_sym_additive_expression_repeat1]), (STATE
       1386, 2, [sym_comment, sym_documentation_comment]), (ACTIONS 2596, 6, [anon_sym_QMARK,
       anon_sym_LT, anon_sym_GT, anon_sym_PIPE, anon_sym_AMP, anon_sym_GT_GT]), (ACTIONS 2594,
       23, [anon_sym_RBRACE, anon_sym_COMMA, anon_sym_RBRACK, anon_sym_COLON, anon_sym_RPAREN,
       anon_sym_QMARK_QMARK, sym_equality_operator, anon_sym_LT_EQ, anon_sym_GT_EQ,
       anon_sym_CARET, anon_sym_LT_LT, anon_sym_GT_GT_GT, sym__additive_operator, anon_sym_is,
       anon_sym_as, anon_sym_DOT_DOT, anon_sym_QMARK_DOT_DOT, anon_sym_SEMI, anon_sym_EQ_GT,
       anon_sym_case, anon_sym_else, anon_sym_AMP_AMP, anon_sym_PIPE_PIPE])]),
     (69824, 10, [(ACTIONS 3, 1, [anon_sym_SLASH_SLASH]), (ACTIONS 5, 1,
       [anon_sym_SLASH_STAR]), (ACTIONS 7, 1, [anon_sym_SLASH_SLASH_SLASH]), (ACTIONS 9, 1,
       [sym__block_comment]), (ACTIONS 11, 1, [sym__documentation_block_comment]), (ACTIONS 3406,
       1, [anon_sym_super]), (STATE 1487, 1, [sym_super]), (STATE 1387, 2, [sym_comment,
       sym_documentation_comment]), (ACTIONS 3306, 13, [anon_sym_POUND, sym_hex_integer_literal,
       anon_sym_DQUOTE_DQUOTE_DQUOTE, anon_sym_SQUOTE_SQUOTE_SQUOTE,
       anon_sym_r_DQUOTE_DQUOTE_DQUOTE, anon_sym_r_SQUOTE_SQUOTE_SQUOTE, anon_sym_LBRACE,
       anon_sym_LBRACK, anon_sym_LPAREN, anon_sym_LT, sym_increment_operator, anon_sym_BANG,
       anon_sym_TILDE]), (ACTIONS 3304, 16, [sym_decimal_integer_literal,
       sym_decimal_floating_point_literal, anon_sym_true, anon_sym_false, anon_sym_DQUOTE,
       anon_sym_SQUOTE, anon_sym_r_DQUOTE, anon_sym_r_SQUOTE, anon_sym_null, sym_minus_operator,
       anon_sym_await, anon_sym_switch, anon_sym_new, sym_const_builtin, anon_sym_this,
       sym_identifier])])]"

lemma small_run_510: "small_run 1385 69706 ts_small_parse_table_510 1388 69883"
  by (simp add: small_simps ts_small_parse_table_510_def)

definition ts_small_parse_table_511 :: "small_group list" where
  "ts_small_parse_table_511 = [
     (69883, 36, [(ACTIONS 3, 1, [anon_sym_SLASH_SLASH]), (ACTIONS 5, 1,
       [anon_sym_SLASH_STAR]), (ACTIONS 7, 1, [anon_sym_SLASH_SLASH_SLASH]), (ACTIONS 9, 1,
       [sym__block_comment]), (ACTIONS 11, 1, [sym__documentation_block_comment]), (ACTIONS 17,
       1, [anon_sym_LPAREN]), (ACTIONS 33, 1, [sym_void_type]), (ACTIONS 35, 1, [anon_sym_var]),
       (ACTIONS 45, 1, [anon_sym_Function]), (ACTIONS 67, 1, [anon_sym_late]), (ACTIONS 143, 1,
       [anon_sym_AT]), (ACTIONS 145, 1, [anon_sym_final]), (ACTIONS 153, 1,
       [anon_sym_covariant]), (ACTIONS 2268, 1, [sym_const_builtin]), (ACTIONS 3408, 1,
       [sym_identifier]), (STATE 1308, 1, [aux_sym__metadata_repeat1]), (STATE 1361, 1,
       [sym_annotation]), (STATE 1463, 1, [sym__function_builtin_identifier]), (STATE 1530, 1,
       [sym__type_name]), (STATE 1605, 1, [aux_sym__function_type_tails]), (STATE 1704, 1,
       [sym__function_type_tail]), (STATE 1722, 1, [sym__metadata]), (STATE 1764, 1,
       [sym_final_builtin]), (STATE 1771, 1, [sym_inferred_type]), (STATE 1796, 1,
       [sym__type_not_function]), (STATE 1799, 1, [sym__covariant]), (STATE 1805, 1,
       [sym_record_type]), (STATE 1848, 1, [sym_function_type]), (STATE 1896, 1,
       [sym__type_not_void_not_function]), (STATE 1915, 1, [sym__late_builtin]), (STATE 2667, 1,
       [sym__declared_identifier]), (STATE 2755, 1, [sym__var_or_type]), (STATE 2943, 1,
       [sym__type]), (STATE 3419, 1, [sym__final_const_var_or_type]), (STATE 1388, 2,
       [sym_comment, sym_documentation_comment]), (STATE 3160, 2,
       [sym_pattern_variable_declaration, sym_initialized_variable_definition])]),
     (69994, 8, [(ACTIONS 3, 1, [anon_sym_SLASH_SLASH]), (ACTIONS 5, 1, [anon_sym_SLASH_STAR]),
       (ACTIONS 7, 1, [anon_sym_SLASH_SLASH_SLASH]), (ACTIONS 9, 1, [sym__block_comment]),
       (ACTIONS 11, 1, [sym__documentation_block_comment]), (STATE 1389, 2, [sym_comment,
       sym_documentation_comment]), (ACTIONS 3076, 9, [anon_sym_QMARK, anon_sym_LT, anon_sym_GT,
       anon_sym_PIPE, anon_sym_AMP, anon_sym_GT_GT, anon_sym_SLASH, anon_sym_as,
       anon_sym_async]), (ACTIONS 3074, 22, [anon_sym_LBRACE, anon_sym_COMMA,
       anon_sym_QMARK_QMARK, sym_equality_operator, anon_sym_LT_EQ, anon_sym_GT_EQ,
       anon_sym_CARET, anon_sym_LT_LT, anon_sym_GT_GT_GT, sym__additive_operator, anon_sym_STAR,
       anon_sym_PERCENT, anon_sym_TILDE_SLASH, anon_sym_is, anon_sym_DOT_DOT,
       anon_sym_QMARK_DOT_DOT, anon_sym_SEMI, anon_sym_EQ_GT, anon_sym_async_STAR,
       anon_sym_sync_STAR, anon_sym_AMP_AMP, anon_sym_PIPE_PIPE])])]"

lemma small_run_511: "small_run 1388 69883 ts_small_parse_table_511 1390 70049"
  by (simp add: small_simps ts_small_parse_table_511_def)

definition ts_small_parse_table_512 :: "small_group list" where
  "ts_small_parse_table_512 = [
     (70049, 8, [(ACTIONS 3, 1, [anon_sym_SLASH_SLASH]), (ACTIONS 5, 1, [anon_sym_SLASH_STAR]),
       (ACTIONS 7, 1, [anon_sym_SLASH_SLASH_SLASH]), (ACTIONS 9, 1, [sym__block_comment]),
       (ACTIONS 11, 1, [sym__documentation_block_comment]), (STATE 1390, 2, [sym_comment,
       sym_documentation_comment]), (ACTIONS 2031, 9, [anon_sym_QMARK, anon_sym_LT, anon_sym_GT,
       anon_sym_PIPE, anon_sym_AMP, anon_sym_GT_GT, anon_sym_SLASH, anon_sym_as,
       anon_sym_async]), (ACTIONS 2017, 22, [anon_sym_LBRACE, anon_sym_COMMA,
       anon_sym_QMARK_QMARK, sym_equality_operator, anon_sym_LT_EQ, anon_sym_GT_EQ,
       anon_sym_CARET, anon_sym_LT_LT, anon_sym_GT_GT_GT, sym__additive_operator, anon_sym_STAR,
       anon_sym_PERCENT, anon_sym_TILDE_SLASH, anon_sym_is, anon_sym_DOT_DOT,
       anon_sym_QMARK_DOT_DOT, anon_sym_SEMI, anon_sym_EQ_GT, anon_sym_async_STAR,
       anon_sym_sync_STAR, anon_sym_AMP_AMP, anon_sym_PIPE_PIPE])]),
     (70104, 8, [(ACTIONS 3, 1, [anon_sym_SLASH_SLASH]), (ACTIONS 5, 1, [anon_sym_SLASH_STAR]),
       (ACTIONS 7, 1, [anon_sym_SLASH_SLASH_SLASH]), (ACTIONS 9, 1, [sym__block_comment]),
       (ACTIONS 11, 1, [sym__documentation_block_comment]), (STATE 1391, 2, [sym_comment,
       sym_documentation_comment]), (ACTIONS 3080, 9, [anon_sym_QMARK, anon_sym_LT, anon_sym_GT,
       anon_sym_PIPE, anon_sym_AMP, anon_sym_GT_GT, anon_sym_SLASH, anon_sym_as,
       anon_sym_async]), (ACTIONS 3078, 22, [anon_sym_LBRACE, anon_sym_COMMA,
       anon_sym_QMARK_QMARK, sym_equality_operator, anon_sym_LT_EQ, anon_sym_GT_EQ,
       anon_sym_CARET, anon_sym_LT_LT, anon_sym_GT_GT_GT, sym__additive_operator, anon_sym_STAR,
       anon_sym_PERCENT, anon_sym_TILDE_SLASH, anon_sym_is, anon_sym_DOT_DOT,
       anon_sym_QMARK_DOT_DOT, anon_sym_SEMI, anon_sym_EQ_GT, anon_sym_async_STAR,
       anon_sym_sync_STAR, anon_sym_AMP_AMP, anon_sym_PIPE_PIPE])]),
     (70159, 10, [(ACTIONS 3, 1, [anon_sym_SLASH_SLASH]), (ACTIONS 5, 1,
       [anon_sym_SLASH_STAR]), (ACTIONS 7, 1, [anon_sym_SLASH_SLASH_SLASH]), (ACTIONS 9, 1,
       [sym__block_comment]), (ACTIONS 11, 1, [sym__documentation_block_comment]), (STATE 330, 1,
       [sym_logical_and_operator]), (STATE 1383, 1, [aux_sym_logical_and_expression_repeat1]),
       (STATE 1392, 2, [sym_comment, sym_documentation_comment]), (ACTIONS 2604, 6,
       [anon_sym_QMARK, anon_sym_LT, anon_sym_GT, anon_sym_PIPE, anon_sym_AMP, anon_sym_GT_GT]),
       (ACTIONS 2602, 23, [anon_sym_RBRACE, anon_sym_COMMA, anon_sym_RBRACK, anon_sym_COLON,
       anon_sym_RPAREN, anon_sym_QMARK_QMARK, sym_equality_operator, anon_sym_LT_EQ,
       anon_sym_GT_EQ, anon_sym_CARET, anon_sym_LT_LT, anon_sym_GT_GT_GT, sym__additive_operator,
       anon_sym_is, anon_sym_as, anon_sym_DOT_DOT, anon_sym_QMARK_DOT_DOT, anon_sym_SEMI,
       anon_sym_EQ_GT, anon_sym_case, anon_sym_else, anon_sym_AMP_AMP, anon_sym_PIPE_PIPE])])]"

lemma small_run_512: "small_run 1390 70049 ts_small_parse_table_512 1393 70218"
  by (simp add: small_simps ts_small_parse_table_512_def)

definition ts_small_parse_table_513 :: "small_group list" where
  "ts_small_parse_table_513 = [
     (70218, 10, [(ACTIONS 3, 1, [anon_sym_SLASH_SLASH]), (ACTIONS 5, 1,
       [anon_sym_SLASH_STAR]), (ACTIONS 7, 1, [anon_sym_SLASH_SLASH_SLASH]), (ACTIONS 9, 1,
       [sym__block_comment]), (ACTIONS 11, 1, [sym__documentation_block_comment]), (STATE 332, 1,
       [sym_logical_or_operator]), (STATE 1384, 1, [aux_sym_logical_or_expression_repeat1]),
       (STATE 1393, 2, [sym_comment, sym_documentation_comment]), (ACTIONS 2600, 6,
       [anon_sym_QMARK, anon_sym_LT, anon_sym_GT, anon_sym_PIPE, anon_sym_AMP, anon_sym_GT_GT]),
       (ACTIONS 2598, 23, [anon_sym_RBRACE, anon_sym_COMMA, anon_sym_RBRACK, anon_sym_COLON,
       anon_sym_RPAREN, anon_sym_QMARK_QMARK, sym_equality_operator, anon_sym_LT_EQ,
       anon_sym_GT_EQ, anon_sym_CARET, anon_sym_LT_LT, anon_sym_GT_GT_GT, sym__additive_operator,
       anon_sym_is, anon_sym_as, anon_sym_DOT_DOT, anon_sym_QMARK_DOT_DOT, anon_sym_SEMI,
       anon_sym_EQ_GT, anon_sym_case, anon_sym_else, anon_sym_AMP_AMP, anon_sym_PIPE_PIPE])]),
     (70277, 10, [(ACTIONS 3, 1, [anon_sym_SLASH_SLASH]), (ACTIONS 5, 1,
       [anon_sym_SLASH_STAR]), (ACTIONS 7, 1, [anon_sym_SLASH_SLASH_SLASH]), (ACTIONS 9, 1,
       [sym__block_comment]), (ACTIONS 11, 1, [sym__documentation_block_comment]), (ACTIONS 3410,
       1, [anon_sym_super]), (STATE 1382, 1, [sym_super]), (STATE 1394, 2, [sym_comment,
       sym_documentation_comment]), (ACTIONS 3306, 13, [anon_sym_POUND, sym_hex_integer_literal,
       anon_sym_DQUOTE_DQUOTE_DQUOTE, anon_sym_SQUOTE_SQUOTE_SQUOTE,
       anon_sym_r_DQUOTE_DQUOTE_DQUOTE, anon_sym_r_SQUOTE_SQUOTE_SQUOTE, anon_sym_LBRACE,
       anon_sym_LBRACK, anon_sym_LPAREN, anon_sym_LT, sym_increment_operator, anon_sym_BANG,
       anon_sym_TILDE]), (ACTIONS 3304, 16, [sym_decimal_integer_literal,
       sym_decimal_floating_point_literal, anon_sym_true, anon_sym_false, anon_sym_DQUOTE,
       anon_sym_SQUOTE, anon_sym_r_DQUOTE, anon_sym_r_SQUOTE, anon_sym_null, sym_minus_operator,
       anon_sym_await, anon_sym_switch, anon_sym_new, sym_const_builtin, anon_sym_this,
       sym_identifier])]),
     (70336, 8, [(ACTIONS 3, 1, [anon_sym_SLASH_SLASH]), (ACTIONS 5, 1, [anon_sym_SLASH_STAR]),
       (ACTIONS 7, 1, [anon_sym_SLASH_SLASH_SLASH]), (ACTIONS 9, 1, [sym__block_comment]),
       (ACTIONS 11, 1, [sym__documentation_block_comment]), (STATE 1395, 2, [sym_comment,
       sym_documentation_comment]), (ACTIONS 3414, 13, [anon_sym_POUND, sym_hex_integer_literal,
       anon_sym_DQUOTE_DQUOTE_DQUOTE, anon_sym_SQUOTE_SQUOTE_SQUOTE,
       anon_sym_r_DQUOTE_DQUOTE_DQUOTE, anon_sym_r_SQUOTE_SQUOTE_SQUOTE, anon_sym_LBRACE,
       anon_sym_LBRACK, anon_sym_LPAREN, anon_sym_LT, sym_increment_operator, anon_sym_BANG,
       anon_sym_TILDE]), (ACTIONS 3412, 17, [sym_decimal_integer_literal,
       sym_decimal_floating_point_literal, anon_sym_true, anon_sym_false, anon_sym_DQUOTE,
       anon_sym_SQUOTE, anon_sym_r_DQUOTE, anon_sym_r_SQUOTE, anon_sym_null, sym_minus_operator,
       anon_sym_await, anon_sym_switch, anon_sym_new, sym_const_builtin, anon_sym_this,
       anon_sym_super, sym_identifier])])]"

lemma small_run_513: "small_run 1393 70218 ts_small_parse_table_513 1396 70390"
  by (simp add: small_simps ts_small_parse_table_513_def)

definition ts_small_parse_table_514 :: "small_group list" where
  "ts_small_parse_table_514 = [
     (70390, 8, [(ACTIONS 3, 1, [anon_sym_SLASH_SLASH]), (ACTIONS 5, 1, [anon_sym_SLASH_STAR]),
       (ACTIONS 7, 1, [anon_sym_SLASH_SLASH_SLASH]), (ACTIONS 9, 1, [sym__block_comment]),
       (ACTIONS 11, 1, [sym__documentation_block_comment]), (STATE 1396, 2, [sym_comment,
       sym_documentation_comment]), (ACTIONS 2688, 6, [anon_sym_QMARK, anon_sym_LT, anon_sym_GT,
       anon_sym_PIPE, anon_sym_AMP, anon_sym_GT_GT]), (ACTIONS 2686, 24, [anon_sym_RBRACE,
       anon_sym_COMMA, anon_sym_RBRACK, anon_sym_COLON, anon_sym_RPAREN, anon_sym_QMARK_QMARK,
       sym_equality_operator, anon_sym_LT_EQ, anon_sym_GT_EQ, anon_sym_CARET, anon_sym_LT_LT,
       anon_sym_GT_GT_GT, sym__additive_operator, anon_sym_is, anon_sym_as, anon_sym_DOT_DOT,
       anon_sym_QMARK_DOT_DOT, anon_sym_SEMI, anon_sym_EQ_GT, anon_sym_case, anon_sym_else,
       anon_sym_Function, anon_sym_AMP_AMP, anon_sym_PIPE_PIPE])]),
     (70444, 8, [(ACTIONS 3, 1, [anon_sym_SLASH_SLASH]), (ACTIONS 5, 1, [anon_sym_SLASH_STAR]),
       (ACTIONS 7, 1, [anon_sym_SLASH_SLASH_SLASH]), (ACTIONS 9, 1, [sym__block_comment]),
       (ACTIONS 11, 1, [sym__documentation_block_comment]), (STATE 1397, 2, [sym_comment,
       sym_documentation_comment]), (ACTIONS 3418, 13, [anon_sym_POUND, sym_hex_integer_literal,
       anon_sym_DQUOTE_DQUOTE_DQUOTE, anon_sym_SQUOTE_SQUOTE_SQUOTE,
       anon_sym_r_DQUOTE_DQUOTE_DQUOTE, anon_sym_r_SQUOTE_SQUOTE_SQUOTE, anon_sym_LBRACE,
       anon_sym_LBRACK, anon_sym_LPAREN, anon_sym_LT, sym_increment_operator, anon_sym_BANG,
       anon_sym_TILDE]), (ACTIONS 3416, 17, [sym_decimal_integer_literal,
       sym_decimal_floating_point_literal, anon_sym_true, anon_sym_false, anon_sym_DQUOTE,
       anon_sym_SQUOTE, anon_sym_r_DQUOTE, anon_sym_r_SQUOTE, anon_sym_null, sym_minus_operator,
       anon_sym_await, anon_sym_switch, anon_sym_new, sym_const_builtin, anon_sym_this,
       anon_sym_super, sym_identifier])]),
     (70498, 9, [(ACTIONS 3, 1, [anon_sym_SLASH_SLASH]), (ACTIONS 5, 1, [anon_sym_SLASH_STAR]),
       (ACTIONS 7, 1, [anon_sym_SLASH_SLASH_SLASH]), (ACTIONS 9, 1, [sym__block_comment]),
       (ACTIONS 11, 1, [sym__documentation_block_comment]), (STATE 1410, 1,
       [aux_sym__if_null_expression]), (STATE 1398, 2, [sym_comment, sym_documentation_comment]),
       (ACTIONS 2751, 6, [anon_sym_QMARK, anon_sym_LT, anon_sym_GT, anon_sym_PIPE, anon_sym_AMP,
       anon_sym_GT_GT]), (ACTIONS 2749, 23, [anon_sym_RBRACE, anon_sym_COMMA, anon_sym_RBRACK,
       anon_sym_COLON, anon_sym_RPAREN, anon_sym_QMARK_QMARK, sym_equality_operator,
       anon_sym_LT_EQ, anon_sym_GT_EQ, anon_sym_CARET, anon_sym_LT_LT, anon_sym_GT_GT_GT,
       sym__additive_operator, anon_sym_is, anon_sym_as, anon_sym_DOT_DOT,
       anon_sym_QMARK_DOT_DOT, anon_sym_SEMI, anon_sym_EQ_GT, anon_sym_case, anon_sym_else,
       anon_sym_AMP_AMP, anon_sym_PIPE_PIPE])])]"

lemma small_run_514: "small_run 1396 70390 ts_small_parse_table_514 1399 70554"
  by (simp add: small_simps ts_small_parse_table_514_def)

definition ts_small_parse_table_515 :: "small_group list" where
  "ts_small_parse_table_515 = [
     (70554, 8, [(ACTIONS 3, 1, [anon_sym_SLASH_SLASH]), (ACTIONS 5, 1, [anon_sym_SLASH_STAR]),
       (ACTIONS 7, 1, [anon_sym_SLASH_SLASH_SLASH]), (ACTIONS 9, 1, [sym__block_comment]),
       (ACTIONS 11, 1, [sym__documentation_block_comment]), (STATE 1399, 2, [sym_comment,
       sym_documentation_comment]), (ACTIONS 3422, 13, [anon_sym_POUND, sym_hex_integer_literal,
       anon_sym_DQUOTE_DQUOTE_DQUOTE, anon_sym_SQUOTE_SQUOTE_SQUOTE,
       anon_sym_r_DQUOTE_DQUOTE_DQUOTE, anon_sym_r_SQUOTE_SQUOTE_SQUOTE, anon_sym_LBRACE,
       anon_sym_LBRACK, anon_sym_LPAREN, anon_sym_LT, sym_increment_operator, anon_sym_BANG,
       anon_sym_TILDE]), (ACTIONS 3420, 17, [sym_decimal_integer_literal,
       sym_decimal_floating_point_literal, anon_sym_true, anon_sym_false, anon_sym_DQUOTE,
       anon_sym_SQUOTE, anon_sym_r_DQUOTE, anon_sym_r_SQUOTE, anon_sym_null, sym_minus_operator,
       anon_sym_await, anon_sym_switch, anon_sym_new, sym_const_builtin, anon_sym_this,
       anon_sym_super, sym_identifier])]),
     (70608, 8, [(ACTIONS 3, 1, [anon_sym_SLASH_SLASH]), (ACTIONS 5, 1, [anon_sym_SLASH_STAR]),
       (ACTIONS 7, 1, [anon_sym_SLASH_SLASH_SLASH]), (ACTIONS 9, 1, [sym__block_comment]),
       (ACTIONS 11, 1, [sym__documentation_block_comment]), (STATE 1400, 2, [sym_comment,
       sym_documentation_comment]), (ACTIONS 2743, 6, [anon_sym_QMARK, anon_sym_LT, anon_sym_GT,
       anon_sym_PIPE, anon_sym_AMP, anon_sym_GT_GT]), (ACTIONS 2741, 24, [anon_sym_RBRACE,
       anon_sym_COMMA, anon_sym_RBRACK, anon_sym_COLON, anon_sym_RPAREN, anon_sym_QMARK_QMARK,
       sym_equality_operator, anon_sym_LT_EQ, anon_sym_GT_EQ, anon_sym_CARET, anon_sym_LT_LT,
       anon_sym_GT_GT_GT, sym__additive_operator, anon_sym_is, anon_sym_as, anon_sym_DOT_DOT,
       anon_sym_QMARK_DOT_DOT, anon_sym_SEMI, anon_sym_EQ_GT, anon_sym_case, anon_sym_else,
       anon_sym_Function, anon_sym_AMP_AMP, anon_sym_PIPE_PIPE])]),
     (70662, 8, [(ACTIONS 3, 1, [anon_sym_SLASH_SLASH]), (ACTIONS 5, 1, [anon_sym_SLASH_STAR]),
       (ACTIONS 7, 1, [anon_sym_SLASH_SLASH_SLASH]), (ACTIONS 9, 1, [sym__block_comment]),
       (ACTIONS 11, 1, [sym__documentation_block_comment]), (STATE 1401, 2, [sym_comment,
       sym_documentation_comment]), (ACTIONS 3426, 13, [anon_sym_POUND, sym_hex_integer_literal,
       anon_sym_DQUOTE_DQUOTE_DQUOTE, anon_sym_SQUOTE_SQUOTE_SQUOTE,
       anon_sym_r_DQUOTE_DQUOTE_DQUOTE, anon_sym_r_SQUOTE_SQUOTE_SQUOTE, anon_sym_LBRACE,
       anon_sym_LBRACK, anon_sym_LPAREN, anon_sym_LT, sym_increment_operator, anon_sym_BANG,
       anon_sym_TILDE]), (ACTIONS 3424, 17, [sym_decimal_integer_literal,
       sym_decimal_floating_point_literal, anon_sym_true, anon_sym_false, anon_sym_DQUOTE,
       anon_sym_SQUOTE, anon_sym_r_DQUOTE, anon_sym_r_SQUOTE, anon_sym_null, sym_minus_operator,
       anon_sym_await, anon_sym_switch, anon_sym_new, sym_const_builtin, anon_sym_this,
       anon_sym_super, sym_identifier])])]"

lemma small_run_515: "small_run 1399 70554 ts_small_parse_table_515 1402 70716"
  by (simp add: small_simps ts_small_parse_table_515_def)

definition ts_small_parse_table_516 :: "small_group list" where
  "ts_small_parse_table_516 = [
     (70716, 8, [(ACTIONS 3, 1, [anon_sym_SLASH_SLASH]), (ACTIONS 5, 1, [anon_sym_SLASH_STAR]),
       (ACTIONS 7, 1, [anon_sym_SLASH_SLASH_SLASH]), (ACTIONS 9, 1, [sym__block_comment]),
       (ACTIONS 11, 1, [sym__documentation_block_comment]), (STATE 1402, 2, [sym_comment,
       sym_documentation_comment]), (ACTIONS 3430, 13, [anon_sym_POUND, sym_hex_integer_literal,
       anon_sym_DQUOTE_DQUOTE_DQUOTE, anon_sym_SQUOTE_SQUOTE_SQUOTE,
       anon_sym_r_DQUOTE_DQUOTE_DQUOTE, anon_sym_r_SQUOTE_SQUOTE_SQUOTE, anon_sym_LBRACE,
       anon_sym_LBRACK, anon_sym_LPAREN, anon_sym_LT, sym_increment_operator, anon_sym_BANG,
       anon_sym_TILDE]), (ACTIONS 3428, 17, [sym_decimal_integer_literal,
       sym_decimal_floating_point_literal, anon_sym_true, anon_sym_false, anon_sym_DQUOTE,
       anon_sym_SQUOTE, anon_sym_r_DQUOTE, anon_sym_r_SQUOTE, anon_sym_null, sym_minus_operator,
       anon_sym_await, anon_sym_switch, anon_sym_new, sym_const_builtin, anon_sym_this,
       anon_sym_super, sym_identifier])]),
     (70770, 8, [(ACTIONS 3, 1, [anon_sym_SLASH_SLASH]), (ACTIONS 5, 1, [anon_sym_SLASH_STAR]),
       (ACTIONS 7, 1, [anon_sym_SLASH_SLASH_SLASH]), (ACTIONS 9, 1, [sym__block_comment]),
       (ACTIONS 11, 1, [sym__documentation_block_comment]), (STATE 1403, 2, [sym_comment,
       sym_documentation_comment]), (ACTIONS 2644, 6, [anon_sym_QMARK, anon_sym_LT, anon_sym_GT,
       anon_sym_PIPE, anon_sym_AMP, anon_sym_GT_GT]), (ACTIONS 2642, 24, [anon_sym_RBRACE,
       anon_sym_COMMA, anon_sym_RBRACK, anon_sym_COLON, anon_sym_RPAREN, anon_sym_QMARK_QMARK,
       sym_equality_operator, anon_sym_LT_EQ, anon_sym_GT_EQ, anon_sym_CARET, anon_sym_LT_LT,
       anon_sym_GT_GT_GT, sym__additive_operator, anon_sym_is, anon_sym_as, anon_sym_DOT_DOT,
       anon_sym_QMARK_DOT_DOT, anon_sym_SEMI, anon_sym_EQ_GT, anon_sym_case, anon_sym_else,
       anon_sym_Function, anon_sym_AMP_AMP, anon_sym_PIPE_PIPE])]),
     (70824, 8, [(ACTIONS 3, 1, [anon_sym_SLASH_SLASH]), (ACTIONS 5, 1, [anon_sym_SLASH_STAR]),
       (ACTIONS 7, 1, [anon_sym_SLASH_SLASH_SLASH]), (ACTIONS 9, 1, [sym__block_comment]),
       (ACTIONS 11, 1, [sym__documentation_block_comment]), (STATE 1404, 2, [sym_comment,
       sym_documentation_comment]), (ACTIONS 3422, 13, [anon_sym_POUND, sym_hex_integer_literal,
       anon_sym_DQUOTE_DQUOTE_DQUOTE, anon_sym_SQUOTE_SQUOTE_SQUOTE,
       anon_sym_r_DQUOTE_DQUOTE_DQUOTE, anon_sym_r_SQUOTE_SQUOTE_SQUOTE, anon_sym_LBRACE,
       anon_sym_LBRACK, anon_sym_LPAREN, sym_equality_operator, anon_sym_LT_EQ, anon_sym_GT_EQ,
       sym_minus_operator]), (ACTIONS 3420, 17, [sym_decimal_integer_literal,
       sym_decimal_floating_point_literal, anon_sym_true, anon_sym_false, anon_sym_DQUOTE,
       anon_sym_SQUOTE, anon_sym_r_DQUOTE, anon_sym_r_SQUOTE, anon_sym_null, anon_sym_LT,
       anon_sym_GT, anon_sym_final, sym_void_type, anon_sym_var, anon_sym_Function,
       sym_const_builtin, sym_identifier])])]"

lemma small_run_516: "small_run 1402 70716 ts_small_parse_table_516 1405 70878"
  by (simp add: small_simps ts_small_parse_table_516_def)

definition ts_small_parse_table_517 :: "small_group list" where
  "ts_small_parse_table_517 = [
     (70878, 9, [(ACTIONS 3, 1, [anon_sym_SLASH_SLASH]), (ACTIONS 5, 1, [anon_sym_SLASH_STAR]),
       (ACTIONS 7, 1, [anon_sym_SLASH_SLASH_SLASH]), (ACTIONS 9, 1, [sym__block_comment]),
       (ACTIONS 11, 1, [sym__documentation_block_comment]), (STATE 1413, 1,
       [aux_sym_bitwise_or_expression_repeat1]), (STATE 1405, 2, [sym_comment,
       sym_documentation_comment]), (ACTIONS 2612, 6, [anon_sym_QMARK, anon_sym_LT, anon_sym_GT,
       anon_sym_PIPE, anon_sym_AMP, anon_sym_GT_GT]), (ACTIONS 2610, 23, [anon_sym_RBRACE,
       anon_sym_COMMA, anon_sym_RBRACK, anon_sym_COLON, anon_sym_RPAREN, anon_sym_QMARK_QMARK,
       sym_equality_operator, anon_sym_LT_EQ, anon_sym_GT_EQ, anon_sym_CARET, anon_sym_LT_LT,
       anon_sym_GT_GT_GT, sym__additive_operator, anon_sym_is, anon_sym_as, anon_sym_DOT_DOT,
       anon_sym_QMARK_DOT_DOT, anon_sym_SEMI, anon_sym_EQ_GT, anon_sym_case, anon_sym_else,
       anon_sym_AMP_AMP, anon_sym_PIPE_PIPE])]),
     (70934, 8, [(ACTIONS 3, 1, [anon_sym_SLASH_SLASH]), (ACTIONS 5, 1, [anon_sym_SLASH_STAR]),
       (ACTIONS 7, 1, [anon_sym_SLASH_SLASH_SLASH]), (ACTIONS 9, 1, [sym__block_comment]),
       (ACTIONS 11, 1, [sym__documentation_block_comment]), (STATE 1406, 2, [sym_comment,
       sym_documentation_comment]), (ACTIONS 2651, 6, [anon_sym_QMARK, anon_sym_LT, anon_sym_GT,
       anon_sym_PIPE, anon_sym_AMP, anon_sym_GT_GT]), (ACTIONS 2649, 24, [anon_sym_RBRACE,
       anon_sym_COMMA, anon_sym_RBRACK, anon_sym_COLON, anon_sym_RPAREN, anon_sym_QMARK_QMARK,
       sym_equality_operator, anon_sym_LT_EQ, anon_sym_GT_EQ, anon_sym_CARET, anon_sym_LT_LT,
       anon_sym_GT_GT_GT, sym__additive_operator, anon_sym_is, anon_sym_as, anon_sym_DOT_DOT,
       anon_sym_QMARK_DOT_DOT, anon_sym_SEMI, anon_sym_EQ_GT, anon_sym_case, anon_sym_else,
       anon_sym_Function, anon_sym_AMP_AMP, anon_sym_PIPE_PIPE])]),
     (70988, 8, [(ACTIONS 3, 1, [anon_sym_SLASH_SLASH]), (ACTIONS 5, 1, [anon_sym_SLASH_STAR]),
       (ACTIONS 7, 1, [anon_sym_SLASH_SLASH_SLASH]), (ACTIONS 9, 1, [sym__block_comment]),
       (ACTIONS 11, 1, [sym__documentation_block_comment]), (STATE 1407, 2, [sym_comment,
       sym_documentation_comment]), (ACTIONS 2718, 6, [anon_sym_QMARK, anon_sym_LT, anon_sym_GT,
       anon_sym_PIPE, anon_sym_AMP, anon_sym_GT_GT]), (ACTIONS 2716, 24, [anon_sym_RBRACE,
       anon_sym_COMMA, anon_sym_RBRACK, anon_sym_COLON, anon_sym_RPAREN, anon_sym_QMARK_QMARK,
       sym_equality_operator, anon_sym_LT_EQ, anon_sym_GT_EQ, anon_sym_CARET, anon_sym_LT_LT,
       anon_sym_GT_GT_GT, sym__additive_operator, anon_sym_is, anon_sym_as, anon_sym_DOT_DOT,
       anon_sym_QMARK_DOT_DOT, anon_sym_SEMI, anon_sym_EQ_GT, anon_sym_case, anon_sym_else,
       anon_sym_Function, anon_sym_AMP_AMP, anon_sym_PIPE_PIPE])])]"

lemma small_run_517: "small_run 1405 70878 ts_small_parse_table_517 1408 71042"
  by (simp add: small_simps ts_small_parse_table_517_def)

definition ts_small_parse_table_518 :: "small_group list" where
  "ts_small_parse_table_518 = [
     (71042, 9, [(ACTIONS 3, 1, [anon_sym_SLASH_SLASH]), (ACTIONS 5, 1, [anon_sym_SLASH_STAR]),
       (ACTIONS 7, 1, [anon_sym_SLASH_SLASH_SLASH]), (ACTIONS 9, 1, [sym__block_comment]),
       (ACTIONS 11, 1, [sym__documentation_block_comment]), (STATE 1417, 1,
       [aux_sym_bitwise_xor_expression_repeat1]), (STATE 1408, 2, [sym_comment,
       sym_documentation_comment]), (ACTIONS 2616, 6, [anon_sym_QMARK, anon_sym_LT, anon_sym_GT,
       anon_sym_PIPE, anon_sym_AMP, anon_sym_GT_GT]), (ACTIONS 2614, 23, [anon_sym_RBRACE,
       anon_sym_COMMA, anon_sym_RBRACK, anon_sym_COLON, anon_sym_RPAREN, anon_sym_QMARK_QMARK,
       sym_equality_operator, anon_sym_LT_EQ, anon_sym_GT_EQ, anon_sym_CARET, anon_sym_LT_LT,
       anon_sym_GT_GT_GT, sym__additive_operator, anon_sym_is, anon_sym_as, anon_sym_DOT_DOT,
       anon_sym_QMARK_DOT_DOT, anon_sym_SEMI, anon_sym_EQ_GT, anon_sym_case, anon_sym_else,
       anon_sym_AMP_AMP, anon_sym_PIPE_PIPE])]),
     (71098, 9, [(ACTIONS 3, 1, [anon_sym_SLASH_SLASH]), (ACTIONS 5, 1, [anon_sym_SLASH_STAR]),
       (ACTIONS 7, 1, [anon_sym_SLASH_SLASH_SLASH]), (ACTIONS 9, 1, [sym__block_comment]),
       (ACTIONS 11, 1, [sym__documentation_block_comment]), (STATE 1421, 1,
       [aux_sym_bitwise_and_expression_repeat1]), (STATE 1409, 2, [sym_comment,
       sym_documentation_comment]), (ACTIONS 2620, 6, [anon_sym_QMARK, anon_sym_LT, anon_sym_GT,
       anon_sym_PIPE, anon_sym_AMP, anon_sym_GT_GT]), (ACTIONS 2618, 23, [anon_sym_RBRACE,
       anon_sym_COMMA, anon_sym_RBRACK, anon_sym_COLON, anon_sym_RPAREN, anon_sym_QMARK_QMARK,
       sym_equality_operator, anon_sym_LT_EQ, anon_sym_GT_EQ, anon_sym_CARET, anon_sym_LT_LT,
       anon_sym_GT_GT_GT, sym__additive_operator, anon_sym_is, anon_sym_as, anon_sym_DOT_DOT,
       anon_sym_QMARK_DOT_DOT, anon_sym_SEMI, anon_sym_EQ_GT, anon_sym_case, anon_sym_else,
       anon_sym_AMP_AMP, anon_sym_PIPE_PIPE])]),
     (71154, 9, [(ACTIONS 3, 1, [anon_sym_SLASH_SLASH]), (ACTIONS 5, 1, [anon_sym_SLASH_STAR]),
       (ACTIONS 7, 1, [anon_sym_SLASH_SLASH_SLASH]), (ACTIONS 9, 1, [sym__block_comment]),
       (ACTIONS 11, 1, [sym__documentation_block_comment]), (ACTIONS 3432, 1,
       [anon_sym_QMARK_QMARK]), (STATE 1410, 3, [aux_sym__if_null_expression, sym_comment,
       sym_documentation_comment]), (ACTIONS 2812, 6, [anon_sym_QMARK, anon_sym_LT, anon_sym_GT,
       anon_sym_PIPE, anon_sym_AMP, anon_sym_GT_GT]), (ACTIONS 2807, 22, [anon_sym_RBRACE,
       anon_sym_COMMA, anon_sym_RBRACK, anon_sym_COLON, anon_sym_RPAREN, sym_equality_operator,
       anon_sym_LT_EQ, anon_sym_GT_EQ, anon_sym_CARET, anon_sym_LT_LT, anon_sym_GT_GT_GT,
       sym__additive_operator, anon_sym_is, anon_sym_as, anon_sym_DOT_DOT,
       anon_sym_QMARK_DOT_DOT, anon_sym_SEMI, anon_sym_EQ_GT, anon_sym_case, anon_sym_else,
       anon_sym_AMP_AMP, anon_sym_PIPE_PIPE])])]"

lemma small_run_518: "small_run 1408 71042 ts_small_parse_table_518 1411 71210"
  by (simp add: small_simps ts_small_parse_table_518_def)

definition ts_small_parse_table_519 :: "small_group list" where
  "ts_small_parse_table_519 = [
     (71210, 8, [(ACTIONS 3, 1, [anon_sym_SLASH_SLASH]), (ACTIONS 5, 1, [anon_sym_SLASH_STAR]),
       (ACTIONS 7, 1, [anon_sym_SLASH_SLASH_SLASH]), (ACTIONS 9, 1, [sym__block_comment]),
       (ACTIONS 11, 1, [sym__documentation_block_comment]), (STATE 1411, 2, [sym_comment,
       sym_documentation_comment]), (ACTIONS 2655, 6, [anon_sym_QMARK, anon_sym_LT, anon_sym_GT,
       anon_sym_PIPE, anon_sym_AMP, anon_sym_GT_GT]), (ACTIONS 2653, 24, [anon_sym_RBRACE,
       anon_sym_COMMA, anon_sym_RBRACK, anon_sym_COLON, anon_sym_RPAREN, anon_sym_QMARK_QMARK,
       sym_equality_operator, anon_sym_LT_EQ, anon_sym_GT_EQ, anon_sym_CARET, anon_sym_LT_LT,
       anon_sym_GT_GT_GT, sym__additive_operator, anon_sym_is, anon_sym_as, anon_sym_DOT_DOT,
       anon_sym_QMARK_DOT_DOT, anon_sym_SEMI, anon_sym_EQ_GT, anon_sym_case, anon_sym_else,
       anon_sym_Function, anon_sym_AMP_AMP, anon_sym_PIPE_PIPE])]),
     (71264, 8, [(ACTIONS 3, 1, [anon_sym_SLASH_SLASH]), (ACTIONS 5, 1, [anon_sym_SLASH_STAR]),
       (ACTIONS 7, 1, [anon_sym_SLASH_SLASH_SLASH]), (ACTIONS 9, 1, [sym__block_comment]),
       (ACTIONS 11, 1, [sym__documentation_block_comment]), (STATE 1412, 2, [sym_comment,
       sym_documentation_comment]), (ACTIONS 3437, 13, [anon_sym_POUND, sym_hex_integer_literal,
       anon_sym_DQUOTE_DQUOTE_DQUOTE, anon_sym_SQUOTE_SQUOTE_SQUOTE,
       anon_sym_r_DQUOTE_DQUOTE_DQUOTE, anon_sym_r_SQUOTE_SQUOTE_SQUOTE, anon_sym_LBRACE,
       anon_sym_LBRACK, anon_sym_LPAREN, anon_sym_LT, sym_increment_operator, anon_sym_BANG,
       anon_sym_TILDE]), (ACTIONS 3435, 17, [sym_decimal_integer_literal,
       sym_decimal_floating_point_literal, anon_sym_true, anon_sym_false, anon_sym_DQUOTE,
       anon_sym_SQUOTE, anon_sym_r_DQUOTE, anon_sym_r_SQUOTE, anon_sym_null, sym_minus_operator,
       anon_sym_await, anon_sym_switch, anon_sym_new, sym_const_builtin, anon_sym_this,
       anon_sym_super, sym_identifier])]),
     (71318, 9, [(ACTIONS 3, 1, [anon_sym_SLASH_SLASH]), (ACTIONS 5, 1, [anon_sym_SLASH_STAR]),
       (ACTIONS 7, 1, [anon_sym_SLASH_SLASH_SLASH]), (ACTIONS 9, 1, [sym__block_comment]),
       (ACTIONS 11, 1, [sym__documentation_block_comment]), (ACTIONS 3439, 1, [anon_sym_PIPE]),
       (STATE 1413, 3, [sym_comment, sym_documentation_comment,
       aux_sym_bitwise_or_expression_repeat1]), (ACTIONS 1420, 5, [anon_sym_QMARK, anon_sym_LT,
       anon_sym_GT, anon_sym_AMP, anon_sym_GT_GT]), (ACTIONS 1418, 23, [anon_sym_RBRACE,
       anon_sym_COMMA, anon_sym_RBRACK, anon_sym_COLON, anon_sym_RPAREN, anon_sym_QMARK_QMARK,
       sym_equality_operator, anon_sym_LT_EQ, anon_sym_GT_EQ, anon_sym_CARET, anon_sym_LT_LT,
       anon_sym_GT_GT_GT, sym__additive_operator, anon_sym_is, anon_sym_as, anon_sym_DOT_DOT,
       anon_sym_QMARK_DOT_DOT, anon_sym_SEMI, anon_sym_EQ_GT, anon_sym_case, anon_sym_else,
       anon_sym_AMP_AMP, anon_sym_PIPE_PIPE])])]"

lemma small_run_519: "small_run 1411 71210 ts_small_parse_table_519 1414 71374"
  by (simp add: small_simps ts_small_parse_table_519_def)

definition ts_small_parse_table_520 :: "small_group list" where
  "ts_small_parse_table_520 = [
     (71374, 8, [(ACTIONS 3, 1, [anon_sym_SLASH_SLASH]), (ACTIONS 5, 1, [anon_sym_SLASH_STAR]),
       (ACTIONS 7, 1, [anon_sym_SLASH_SLASH_SLASH]), (ACTIONS 9, 1, [sym__block_comment]),
       (ACTIONS 11, 1, [sym__documentation_block_comment]), (STATE 1414, 2, [sym_comment,
       sym_documentation_comment]), (ACTIONS 2680, 6, [anon_sym_QMARK, anon_sym_LT, anon_sym_GT,
       anon_sym_PIPE, anon_sym_AMP, anon_sym_GT_GT]), (ACTIONS 2678, 24, [anon_sym_RBRACE,
       anon_sym_COMMA, anon_sym_RBRACK, anon_sym_COLON, anon_sym_RPAREN, anon_sym_QMARK_QMARK,
       sym_equality_operator, anon_sym_LT_EQ, anon_sym_GT_EQ, anon_sym_CARET, anon_sym_LT_LT,
       anon_sym_GT_GT_GT, sym__additive_operator, anon_sym_is, anon_sym_as, anon_sym_DOT_DOT,
       anon_sym_QMARK_DOT_DOT, anon_sym_SEMI, anon_sym_EQ_GT, anon_sym_case, anon_sym_else,
       anon_sym_Function, anon_sym_AMP_AMP, anon_sym_PIPE_PIPE])]),
     (71428, 8, [(ACTIONS 3, 1, [anon_sym_SLASH_SLASH]), (ACTIONS 5, 1, [anon_sym_SLASH_STAR]),
       (ACTIONS 7, 1, [anon_sym_SLASH_SLASH_SLASH]), (ACTIONS 9, 1, [sym__block_comment]),
       (ACTIONS 11, 1, [sym__documentation_block_comment]), (STATE 1415, 2, [sym_comment,
       sym_documentation_comment]), (ACTIONS 3444, 13, [anon_sym_POUND, sym_hex_integer_literal,
       anon_sym_DQUOTE_DQUOTE_DQUOTE, anon_sym_SQUOTE_SQUOTE_SQUOTE,
       anon_sym_r_DQUOTE_DQUOTE_DQUOTE, anon_sym_r_SQUOTE_SQUOTE_SQUOTE, anon_sym_LBRACE,
       anon_sym_LBRACK, anon_sym_LPAREN, anon_sym_LT, sym_increment_operator, anon_sym_BANG,
       anon_sym_TILDE]), (ACTIONS 3442, 17, [sym_decimal_integer_literal,
       sym_decimal_floating_point_literal, anon_sym_true, anon_sym_false, anon_sym_DQUOTE,
       anon_sym_SQUOTE, anon_sym_r_DQUOTE, anon_sym_r_SQUOTE, anon_sym_null, sym_minus_operator,
       anon_sym_await, anon_sym_switch, anon_sym_new, sym_const_builtin, anon_sym_this,
       anon_sym_super, sym_identifier])]),
     (71482, 8, [(ACTIONS 3, 1, [anon_sym_SLASH_SLASH]), (ACTIONS 5, 1, [anon_sym_SLASH_STAR]),
       (ACTIONS 7, 1, [anon_sym_SLASH_SLASH_SLASH]), (ACTIONS 9, 1, [sym__block_comment]),
       (ACTIONS 11, 1, [sym__documentation_block_comment]), (STATE 1416, 2, [sym_comment,
       sym_documentation_comment]), (ACTIONS 3448, 13, [anon_sym_POUND, sym_hex_integer_literal,
       anon_sym_DQUOTE_DQUOTE_DQUOTE, anon_sym_SQUOTE_SQUOTE_SQUOTE,
       anon_sym_r_DQUOTE_DQUOTE_DQUOTE, anon_sym_r_SQUOTE_SQUOTE_SQUOTE, anon_sym_LBRACE,
       anon_sym_LBRACK, anon_sym_LPAREN, anon_sym_LT, sym_increment_operator, anon_sym_BANG,
       anon_sym_TILDE]), (ACTIONS 3446, 17, [sym_decimal_integer_literal,
       sym_decimal_floating_point_literal, anon_sym_true, anon_sym_false, anon_sym_DQUOTE,
       anon_sym_SQUOTE, anon_sym_r_DQUOTE, anon_sym_r_SQUOTE, anon_sym_null, sym_minus_operator,
       anon_sym_await, anon_sym_switch, anon_sym_new, sym_const_builtin, anon_sym_this,
       anon_sym_super, sym_identifier])])]"

lemma small_run_520: "small_run 1414 71374 ts_small_parse_table_520 1417 71536"
  by (simp add: small_simps ts_small_parse_table_520_def)

definition ts_small_parse_table_521 :: "small_group list" where
  "ts_small_parse_table_521 = [
     (71536, 9, [(ACTIONS 3, 1, [anon_sym_SLASH_SLASH]), (ACTIONS 5, 1, [anon_sym_SLASH_STAR]),
       (ACTIONS 7, 1, [anon_sym_SLASH_SLASH_SLASH]), (ACTIONS 9, 1, [sym__block_comment]),
       (ACTIONS 11, 1, [sym__documentation_block_comment]), (ACTIONS 3450, 1, [anon_sym_CARET]),
       (STATE 1417, 3, [sym_comment, sym_documentation_comment,
       aux_sym_bitwise_xor_expression_repeat1]), (ACTIONS 1397, 6, [anon_sym_QMARK, anon_sym_LT,
       anon_sym_GT, anon_sym_PIPE, anon_sym_AMP, anon_sym_GT_GT]), (ACTIONS 1395, 22,
       [anon_sym_RBRACE, anon_sym_COMMA, anon_sym_RBRACK, anon_sym_COLON, anon_sym_RPAREN,
       anon_sym_QMARK_QMARK, sym_equality_operator, anon_sym_LT_EQ, anon_sym_GT_EQ,
       anon_sym_LT_LT, anon_sym_GT_GT_GT, sym__additive_operator, anon_sym_is, anon_sym_as,
       anon_sym_DOT_DOT, anon_sym_QMARK_DOT_DOT, anon_sym_SEMI, anon_sym_EQ_GT, anon_sym_case,
       anon_sym_else, anon_sym_AMP_AMP, anon_sym_PIPE_PIPE])]),
     (71592, 11, [(ACTIONS 3, 1, [anon_sym_SLASH_SLASH]), (ACTIONS 5, 1,
       [anon_sym_SLASH_STAR]), (ACTIONS 7, 1, [anon_sym_SLASH_SLASH_SLASH]), (ACTIONS 9, 1,
       [sym__block_comment]), (ACTIONS 11, 1, [sym__documentation_block_comment]), (STATE 367, 1,
       [sym_shift_operator]), (STATE 1397, 1, [sym__shift_operator]), (STATE 1431, 1,
       [aux_sym_shift_expression_repeat1]), (STATE 1418, 2, [sym_comment,
       sym_documentation_comment]), (ACTIONS 2495, 8, [anon_sym_QMARK, anon_sym_LT, anon_sym_GT,
       anon_sym_PIPE, anon_sym_AMP, anon_sym_GT_GT, anon_sym_as, anon_sym_async]), (ACTIONS 2493,
       19, [anon_sym_LBRACE, anon_sym_COMMA, anon_sym_QMARK_QMARK, sym_equality_operator,
       anon_sym_LT_EQ, anon_sym_GT_EQ, anon_sym_CARET, anon_sym_LT_LT, anon_sym_GT_GT_GT,
       sym__additive_operator, anon_sym_is, anon_sym_DOT_DOT, anon_sym_QMARK_DOT_DOT,
       anon_sym_SEMI, anon_sym_EQ_GT, anon_sym_async_STAR, anon_sym_sync_STAR, anon_sym_AMP_AMP,
       anon_sym_PIPE_PIPE])]),
     (71652, 8, [(ACTIONS 3, 1, [anon_sym_SLASH_SLASH]), (ACTIONS 5, 1, [anon_sym_SLASH_STAR]),
       (ACTIONS 7, 1, [anon_sym_SLASH_SLASH_SLASH]), (ACTIONS 9, 1, [sym__block_comment]),
       (ACTIONS 11, 1, [sym__documentation_block_comment]), (STATE 1419, 2, [sym_comment,
       sym_documentation_comment]), (ACTIONS 2684, 6, [anon_sym_QMARK, anon_sym_LT, anon_sym_GT,
       anon_sym_PIPE, anon_sym_AMP, anon_sym_GT_GT]), (ACTIONS 2682, 24, [anon_sym_RBRACE,
       anon_sym_COMMA, anon_sym_RBRACK, anon_sym_COLON, anon_sym_RPAREN, anon_sym_QMARK_QMARK,
       sym_equality_operator, anon_sym_LT_EQ, anon_sym_GT_EQ, anon_sym_CARET, anon_sym_LT_LT,
       anon_sym_GT_GT_GT, sym__additive_operator, anon_sym_is, anon_sym_as, anon_sym_DOT_DOT,
       anon_sym_QMARK_DOT_DOT, anon_sym_SEMI, anon_sym_EQ_GT, anon_sym_case, anon_sym_else,
       anon_sym_Function, anon_sym_AMP_AMP, anon_sym_PIPE_PIPE])])]"

lemma small_run_521: "small_run 1417 71536 ts_small_parse_table_521 1420 71706"
  by (simp add: small_simps ts_small_parse_table_521_def)

definition ts_small_parse_table_522 :: "small_group list" where
  "ts_small_parse_table_522 = [
     (71706, 14, [(ACTIONS 3, 1, [anon_sym_SLASH_SLASH]), (ACTIONS 5, 1,
       [anon_sym_SLASH_STAR]), (ACTIONS 7, 1, [anon_sym_SLASH_SLASH_SLASH]), (ACTIONS 9, 1,
       [sym__block_comment]), (ACTIONS 11, 1, [sym__documentation_block_comment]), (ACTIONS 3457,
       1, [anon_sym_AT]), (ACTIONS 3460, 1, [anon_sym_part]), (STATE 1308, 1,
       [aux_sym__metadata_repeat1]), (STATE 1361, 1, [sym_annotation]), (STATE 1671, 1,
       [sym_part_directive]), (STATE 3508, 1, [sym__metadata]), (ACTIONS 3453, 3,
       [ts_builtin_sym_end, anon_sym_LPAREN, sym_part_of_builtin]), (STATE 1420, 3, [sym_comment,
       sym_documentation_comment, aux_sym_program_repeat2]), (ACTIONS 3455, 20, [anon_sym_enum,
       anon_sym_final, anon_sym_inline, anon_sym_class, anon_sym_extension, sym_void_type,
       anon_sym_var, anon_sym_Function, anon_sym_get, anon_sym_interface, anon_sym_base,
       anon_sym_abstract, anon_sym_sealed, anon_sym_mixin, anon_sym_set, anon_sym_typedef,
       sym_const_builtin, anon_sym_late, anon_sym_external, sym_identifier])]),
     (71772, 9, [(ACTIONS 3, 1, [anon_sym_SLASH_SLASH]), (ACTIONS 5, 1, [anon_sym_SLASH_STAR]),
       (ACTIONS 7, 1, [anon_sym_SLASH_SLASH_SLASH]), (ACTIONS 9, 1, [sym__block_comment]),
       (ACTIONS 11, 1, [sym__documentation_block_comment]), (ACTIONS 3463, 1, [anon_sym_AMP]),
       (STATE 1421, 3, [sym_comment, sym_documentation_comment,
       aux_sym_bitwise_and_expression_repeat1]), (ACTIONS 1408, 5, [anon_sym_QMARK, anon_sym_LT,
       anon_sym_GT, anon_sym_PIPE, anon_sym_GT_GT]), (ACTIONS 1406, 23, [anon_sym_RBRACE,
       anon_sym_COMMA, anon_sym_RBRACK, anon_sym_COLON, anon_sym_RPAREN, anon_sym_QMARK_QMARK,
       sym_equality_operator, anon_sym_LT_EQ, anon_sym_GT_EQ, anon_sym_CARET, anon_sym_LT_LT,
       anon_sym_GT_GT_GT, sym__additive_operator, anon_sym_is, anon_sym_as, anon_sym_DOT_DOT,
       anon_sym_QMARK_DOT_DOT, anon_sym_SEMI, anon_sym_EQ_GT, anon_sym_case, anon_sym_else,
       anon_sym_AMP_AMP, anon_sym_PIPE_PIPE])])]"

lemma small_run_522: "small_run 1420 71706 ts_small_parse_table_522 1422 71828"
  by (simp add: small_simps ts_small_parse_table_522_def)

definition ts_small_parse_table_523 :: "small_group list" where
  "ts_small_parse_table_523 = [
     (71828, 14, [(ACTIONS 3, 1, [anon_sym_SLASH_SLASH]), (ACTIONS 5, 1,
       [anon_sym_SLASH_STAR]), (ACTIONS 7, 1, [anon_sym_SLASH_SLASH_SLASH]), (ACTIONS 9, 1,
       [sym__block_comment]), (ACTIONS 11, 1, [sym__documentation_block_comment]), (ACTIONS 3466,
       1, [anon_sym_LPAREN]), (ACTIONS 3468, 1, [anon_sym_QMARK]), (ACTIONS 3471, 1,
       [anon_sym_LT]), (STATE 1468, 1, [sym_nullable_type]), (STATE 1472, 1,
       [sym_type_parameters]), (STATE 1603, 1, [sym_parameter_type_list]), (STATE 1422, 2,
       [sym_comment, sym_documentation_comment]), (ACTIONS 2460, 4, [anon_sym_GT, anon_sym_PIPE,
       anon_sym_AMP, anon_sym_GT_GT]), (ACTIONS 2449, 20, [anon_sym_RBRACE, anon_sym_COMMA,
       anon_sym_RBRACK, anon_sym_COLON, anon_sym_RPAREN, anon_sym_QMARK_QMARK,
       sym_equality_operator, anon_sym_LT_EQ, anon_sym_GT_EQ, anon_sym_CARET, anon_sym_LT_LT,
       anon_sym_GT_GT_GT, sym__additive_operator, anon_sym_is, anon_sym_as, anon_sym_EQ_GT,
       anon_sym_when, anon_sym_Function, anon_sym_AMP_AMP, anon_sym_PIPE_PIPE])]),
     (71894, 9, [(ACTIONS 3, 1, [anon_sym_SLASH_SLASH]), (ACTIONS 5, 1, [anon_sym_SLASH_STAR]),
       (ACTIONS 7, 1, [anon_sym_SLASH_SLASH_SLASH]), (ACTIONS 9, 1, [sym__block_comment]),
       (ACTIONS 11, 1, [sym__documentation_block_comment]), (ACTIONS 2766, 1,
       [anon_sym_Function]), (STATE 1423, 2, [sym_comment, sym_documentation_comment]), (ACTIONS
       2764, 6, [anon_sym_QMARK, anon_sym_LT, anon_sym_GT, anon_sym_PIPE, anon_sym_AMP,
       anon_sym_GT_GT]), (ACTIONS 2762, 23, [anon_sym_RBRACE, anon_sym_COMMA, anon_sym_RBRACK,
       anon_sym_COLON, anon_sym_RPAREN, anon_sym_QMARK_QMARK, sym_equality_operator,
       anon_sym_LT_EQ, anon_sym_GT_EQ, anon_sym_CARET, anon_sym_LT_LT, anon_sym_GT_GT_GT,
       sym__additive_operator, anon_sym_is, anon_sym_as, anon_sym_DOT_DOT,
       anon_sym_QMARK_DOT_DOT, anon_sym_SEMI, anon_sym_EQ_GT, anon_sym_case, anon_sym_else,
       anon_sym_AMP_AMP, anon_sym_PIPE_PIPE])]),
     (71950, 8, [(ACTIONS 3, 1, [anon_sym_SLASH_SLASH]), (ACTIONS 5, 1, [anon_sym_SLASH_STAR]),
       (ACTIONS 7, 1, [anon_sym_SLASH_SLASH_SLASH]), (ACTIONS 9, 1, [sym__block_comment]),
       (ACTIONS 11, 1, [sym__documentation_block_comment]), (STATE 1424, 2, [sym_comment,
       sym_documentation_comment]), (ACTIONS 2774, 6, [anon_sym_QMARK, anon_sym_LT, anon_sym_GT,
       anon_sym_PIPE, anon_sym_AMP, anon_sym_GT_GT]), (ACTIONS 2772, 24, [anon_sym_RBRACE,
       anon_sym_COMMA, anon_sym_RBRACK, anon_sym_COLON, anon_sym_RPAREN, anon_sym_QMARK_QMARK,
       sym_equality_operator, anon_sym_LT_EQ, anon_sym_GT_EQ, anon_sym_CARET, anon_sym_LT_LT,
       anon_sym_GT_GT_GT, sym__additive_operator, anon_sym_is, anon_sym_as, anon_sym_DOT_DOT,
       anon_sym_QMARK_DOT_DOT, anon_sym_SEMI, anon_sym_EQ_GT, anon_sym_case, anon_sym_else,
       anon_sym_Function, anon_sym_AMP_AMP, anon_sym_PIPE_PIPE])])]"

lemma small_run_523: "small_run 1422 71828 ts_small_parse_table_523 1425 72004"
  by (simp add: small_simps ts_small_parse_table_523_def)

definition ts_small_parse_table_524 :: "small_group list" where
  "ts_small_parse_table_524 = [
     (72004, 8, [(ACTIONS 3, 1, [anon_sym_SLASH_SLASH]), (ACTIONS 5, 1, [anon_sym_SLASH_STAR]),
       (ACTIONS 7, 1, [anon_sym_SLASH_SLASH_SLASH]), (ACTIONS 9, 1, [sym__block_comment]),
       (ACTIONS 11, 1, [sym__documentation_block_comment]), (STATE 1425, 2, [sym_comment,
       sym_documentation_comment]), (ACTIONS 2147, 13, [anon_sym_POUND, sym_hex_integer_literal,
       anon_sym_DQUOTE_DQUOTE_DQUOTE, anon_sym_SQUOTE_SQUOTE_SQUOTE,
       anon_sym_r_DQUOTE_DQUOTE_DQUOTE, anon_sym_r_SQUOTE_SQUOTE_SQUOTE, anon_sym_LBRACE,
       anon_sym_LBRACK, anon_sym_LPAREN, anon_sym_LT, sym_increment_operator, anon_sym_BANG,
       anon_sym_TILDE]), (ACTIONS 2149, 17, [sym_decimal_integer_literal,
       sym_decimal_floating_point_literal, anon_sym_true, anon_sym_false, anon_sym_DQUOTE,
       anon_sym_SQUOTE, anon_sym_r_DQUOTE, anon_sym_r_SQUOTE, anon_sym_null, sym_minus_operator,
       anon_sym_await, anon_sym_switch, anon_sym_new, sym_const_builtin, anon_sym_this,
       anon_sym_super, sym_identifier])]),
     (72058, 14, [(ACTIONS 3, 1, [anon_sym_SLASH_SLASH]), (ACTIONS 5, 1,
       [anon_sym_SLASH_STAR]), (ACTIONS 7, 1, [anon_sym_SLASH_SLASH_SLASH]), (ACTIONS 9, 1,
       [sym__block_comment]), (ACTIONS 11, 1, [sym__documentation_block_comment]), (ACTIONS 3466,
       1, [anon_sym_LPAREN]), (ACTIONS 3474, 1, [anon_sym_QMARK]), (ACTIONS 3478, 1,
       [anon_sym_LT]), (STATE 1471, 1, [sym_nullable_type]), (STATE 1472, 1,
       [sym_type_parameters]), (STATE 1603, 1, [sym_parameter_type_list]), (STATE 1426, 2,
       [sym_comment, sym_documentation_comment]), (ACTIONS 2395, 4, [anon_sym_GT, anon_sym_PIPE,
       anon_sym_AMP, anon_sym_GT_GT]), (ACTIONS 2380, 20, [anon_sym_RBRACE, anon_sym_COMMA,
       anon_sym_RBRACK, anon_sym_COLON, anon_sym_RPAREN, anon_sym_QMARK_QMARK,
       sym_equality_operator, anon_sym_LT_EQ, anon_sym_GT_EQ, anon_sym_CARET, anon_sym_LT_LT,
       anon_sym_GT_GT_GT, sym__additive_operator, anon_sym_is, anon_sym_as, anon_sym_EQ_GT,
       anon_sym_when, anon_sym_Function, anon_sym_AMP_AMP, anon_sym_PIPE_PIPE])]),
     (72124, 8, [(ACTIONS 3, 1, [anon_sym_SLASH_SLASH]), (ACTIONS 5, 1, [anon_sym_SLASH_STAR]),
       (ACTIONS 7, 1, [anon_sym_SLASH_SLASH_SLASH]), (ACTIONS 9, 1, [sym__block_comment]),
       (ACTIONS 11, 1, [sym__documentation_block_comment]), (STATE 1427, 2, [sym_comment,
       sym_documentation_comment]), (ACTIONS 2778, 6, [anon_sym_QMARK, anon_sym_LT, anon_sym_GT,
       anon_sym_PIPE, anon_sym_AMP, anon_sym_GT_GT]), (ACTIONS 2776, 24, [anon_sym_RBRACE,
       anon_sym_COMMA, anon_sym_RBRACK, anon_sym_COLON, anon_sym_RPAREN, anon_sym_QMARK_QMARK,
       sym_equality_operator, anon_sym_LT_EQ, anon_sym_GT_EQ, anon_sym_CARET, anon_sym_LT_LT,
       anon_sym_GT_GT_GT, sym__additive_operator, anon_sym_is, anon_sym_as, anon_sym_DOT_DOT,
       anon_sym_QMARK_DOT_DOT, anon_sym_SEMI, anon_sym_EQ_GT, anon_sym_case, anon_sym_else,
       anon_sym_Function, anon_sym_AMP_AMP, anon_sym_PIPE_PIPE])])]"

lemma small_run_524: "small_run 1425 72004 ts_small_parse_table_524 1428 72178"
  by (simp add: small_simps ts_small_parse_table_524_def)

definition ts_small_parse_table_525 :: "small_group list" where
  "ts_small_parse_table_525 = [
     (72178, 8, [(ACTIONS 3, 1, [anon_sym_SLASH_SLASH]), (ACTIONS 5, 1, [anon_sym_SLASH_STAR]),
       (ACTIONS 7, 1, [anon_sym_SLASH_SLASH_SLASH]), (ACTIONS 9, 1, [sym__block_comment]),
       (ACTIONS 11, 1, [sym__documentation_block_comment]), (STATE 1428, 2, [sym_comment,
       sym_documentation_comment]), (ACTIONS 2782, 6, [anon_sym_QMARK, anon_sym_LT, anon_sym_GT,
       anon_sym_PIPE, anon_sym_AMP, anon_sym_GT_GT]), (ACTIONS 2780, 24, [anon_sym_RBRACE,
       anon_sym_COMMA, anon_sym_RBRACK, anon_sym_COLON, anon_sym_RPAREN, anon_sym_QMARK_QMARK,
       sym_equality_operator, anon_sym_LT_EQ, anon_sym_GT_EQ, anon_sym_CARET, anon_sym_LT_LT,
       anon_sym_GT_GT_GT, sym__additive_operator, anon_sym_is, anon_sym_as, anon_sym_DOT_DOT,
       anon_sym_QMARK_DOT_DOT, anon_sym_SEMI, anon_sym_EQ_GT, anon_sym_case, anon_sym_else,
       anon_sym_Function, anon_sym_AMP_AMP, anon_sym_PIPE_PIPE])]),
     (72232, 8, [(ACTIONS 3, 1, [anon_sym_SLASH_SLASH]), (ACTIONS 5, 1, [anon_sym_SLASH_STAR]),
       (ACTIONS 7, 1, [anon_sym_SLASH_SLASH_SLASH]), (ACTIONS 9, 1, [sym__block_comment]),
       (ACTIONS 11, 1, [sym__documentation_block_comment]), (STATE 1429, 2, [sym_comment,
       sym_documentation_comment]), (ACTIONS 2692, 6, [anon_sym_QMARK, anon_sym_LT, anon_sym_GT,
       anon_sym_PIPE, anon_sym_AMP, anon_sym_GT_GT]), (ACTIONS 2690, 24, [anon_sym_RBRACE,
       anon_sym_COMMA, anon_sym_RBRACK, anon_sym_COLON, anon_sym_RPAREN, anon_sym_QMARK_QMARK,
       sym_equality_operator, anon_sym_LT_EQ, anon_sym_GT_EQ, anon_sym_CARET, anon_sym_LT_LT,
       anon_sym_GT_GT_GT, sym__additive_operator, anon_sym_is, anon_sym_as, anon_sym_DOT_DOT,
       anon_sym_QMARK_DOT_DOT, anon_sym_SEMI, anon_sym_EQ_GT, anon_sym_case, anon_sym_else,
       anon_sym_Function, anon_sym_AMP_AMP, anon_sym_PIPE_PIPE])]),
     (72286, 8, [(ACTIONS 3, 1, [anon_sym_SLASH_SLASH]), (ACTIONS 5, 1, [anon_sym_SLASH_STAR]),
       (ACTIONS 7, 1, [anon_sym_SLASH_SLASH_SLASH]), (ACTIONS 9, 1, [sym__block_comment]),
       (ACTIONS 11, 1, [sym__documentation_block_comment]), (STATE 1430, 2, [sym_comment,
       sym_documentation_comment]), (ACTIONS 2487, 6, [anon_sym_QMARK, anon_sym_LT, anon_sym_GT,
       anon_sym_PIPE, anon_sym_AMP, anon_sym_GT_GT]), (ACTIONS 2479, 24, [anon_sym_RBRACE,
       anon_sym_COMMA, anon_sym_RBRACK, anon_sym_COLON, anon_sym_RPAREN, anon_sym_QMARK_QMARK,
       sym_equality_operator, anon_sym_LT_EQ, anon_sym_GT_EQ, anon_sym_CARET, anon_sym_LT_LT,
       anon_sym_GT_GT_GT, sym__additive_operator, anon_sym_is, anon_sym_as, anon_sym_DOT_DOT,
       anon_sym_QMARK_DOT_DOT, anon_sym_SEMI, anon_sym_EQ_GT, anon_sym_case, anon_sym_else,
       anon_sym_Function, anon_sym_AMP_AMP, anon_sym_PIPE_PIPE])])]"

lemma small_run_525: "small_run 1428 72178 ts_small_parse_table_525 1431 72340"
  by (simp add: small_simps ts_small_parse_table_525_def)

definition ts_small_parse_table_526 :: "small_group list" where
  "ts_small_parse_table_526 = [
     (72340, 12, [(ACTIONS 3, 1, [anon_sym_SLASH_SLASH]), (ACTIONS 5, 1,
       [anon_sym_SLASH_STAR]), (ACTIONS 7, 1, [anon_sym_SLASH_SLASH_SLASH]), (ACTIONS 9, 1,
       [sym__block_comment]), (ACTIONS 11, 1, [sym__documentation_block_comment]), (ACTIONS 2465,
       1, [anon_sym_GT_GT]), (STATE 367, 1, [sym_shift_operator]), (STATE 1397, 1,
       [sym__shift_operator]), (ACTIONS 2462, 2, [anon_sym_LT_LT, anon_sym_GT_GT_GT]), (STATE
       1431, 3, [sym_comment, sym_documentation_comment, aux_sym_shift_expression_repeat1]),
       (ACTIONS 1359, 7, [anon_sym_QMARK, anon_sym_LT, anon_sym_GT, anon_sym_PIPE, anon_sym_AMP,
       anon_sym_as, anon_sym_async]), (ACTIONS 1357, 17, [anon_sym_LBRACE, anon_sym_COMMA,
       anon_sym_QMARK_QMARK, sym_equality_operator, anon_sym_LT_EQ, anon_sym_GT_EQ,
       anon_sym_CARET, sym__additive_operator, anon_sym_is, anon_sym_DOT_DOT,
       anon_sym_QMARK_DOT_DOT, anon_sym_SEMI, anon_sym_EQ_GT, anon_sym_async_STAR,
       anon_sym_sync_STAR, anon_sym_AMP_AMP, anon_sym_PIPE_PIPE])]),
     (72402, 8, [(ACTIONS 3, 1, [anon_sym_SLASH_SLASH]), (ACTIONS 5, 1, [anon_sym_SLASH_STAR]),
       (ACTIONS 7, 1, [anon_sym_SLASH_SLASH_SLASH]), (ACTIONS 9, 1, [sym__block_comment]),
       (ACTIONS 11, 1, [sym__documentation_block_comment]), (STATE 1432, 2, [sym_comment,
       sym_documentation_comment]), (ACTIONS 2805, 6, [anon_sym_QMARK, anon_sym_LT, anon_sym_GT,
       anon_sym_PIPE, anon_sym_AMP, anon_sym_GT_GT]), (ACTIONS 2803, 24, [anon_sym_RBRACE,
       anon_sym_COMMA, anon_sym_RBRACK, anon_sym_COLON, anon_sym_RPAREN, anon_sym_QMARK_QMARK,
       sym_equality_operator, anon_sym_LT_EQ, anon_sym_GT_EQ, anon_sym_CARET, anon_sym_LT_LT,
       anon_sym_GT_GT_GT, sym__additive_operator, anon_sym_is, anon_sym_as, anon_sym_DOT_DOT,
       anon_sym_QMARK_DOT_DOT, anon_sym_SEMI, anon_sym_EQ_GT, anon_sym_case, anon_sym_else,
       anon_sym_Function, anon_sym_AMP_AMP, anon_sym_PIPE_PIPE])]),
     (72456, 8, [(ACTIONS 3, 1, [anon_sym_SLASH_SLASH]), (ACTIONS 5, 1, [anon_sym_SLASH_STAR]),
       (ACTIONS 7, 1, [anon_sym_SLASH_SLASH_SLASH]), (ACTIONS 9, 1, [sym__block_comment]),
       (ACTIONS 11, 1, [sym__documentation_block_comment]), (STATE 1433, 2, [sym_comment,
       sym_documentation_comment]), (ACTIONS 2702, 6, [anon_sym_QMARK, anon_sym_LT, anon_sym_GT,
       anon_sym_PIPE, anon_sym_AMP, anon_sym_GT_GT]), (ACTIONS 2700, 24, [anon_sym_RBRACE,
       anon_sym_COMMA, anon_sym_RBRACK, anon_sym_COLON, anon_sym_RPAREN, anon_sym_QMARK_QMARK,
       sym_equality_operator, anon_sym_LT_EQ, anon_sym_GT_EQ, anon_sym_CARET, anon_sym_LT_LT,
       anon_sym_GT_GT_GT, sym__additive_operator, anon_sym_is, anon_sym_as, anon_sym_DOT_DOT,
       anon_sym_QMARK_DOT_DOT, anon_sym_SEMI, anon_sym_EQ_GT, anon_sym_case, anon_sym_else,
       anon_sym_Function, anon_sym_AMP_AMP, anon_sym_PIPE_PIPE])])]"

lemma small_run_526: "small_run 1431 72340 ts_small_parse_table_526 1434 72510"
  by (simp add: small_simps ts_small_parse_table_526_def)

definition ts_small_parse_table_527 :: "small_group list" where
  "ts_small_parse_table_527 = [
     (72510, 8, [(ACTIONS 3, 1, [anon_sym_SLASH_SLASH]), (ACTIONS 5, 1, [anon_sym_SLASH_STAR]),
       (ACTIONS 7, 1, [anon_sym_SLASH_SLASH_SLASH]), (ACTIONS 9, 1, [sym__block_comment]),
       (ACTIONS 11, 1, [sym__documentation_block_comment]), (STATE 1434, 2, [sym_comment,
       sym_documentation_comment]), (ACTIONS 3484, 13, [anon_sym_POUND, sym_hex_integer_literal,
       anon_sym_DQUOTE_DQUOTE_DQUOTE, anon_sym_SQUOTE_SQUOTE_SQUOTE,
       anon_sym_r_DQUOTE_DQUOTE_DQUOTE, anon_sym_r_SQUOTE_SQUOTE_SQUOTE, anon_sym_LBRACE,
       anon_sym_LBRACK, anon_sym_LPAREN, sym_equality_operator, anon_sym_LT_EQ, anon_sym_GT_EQ,
       sym_minus_operator]), (ACTIONS 3482, 17, [sym_decimal_integer_literal,
       sym_decimal_floating_point_literal, anon_sym_true, anon_sym_false, anon_sym_DQUOTE,
       anon_sym_SQUOTE, anon_sym_r_DQUOTE, anon_sym_r_SQUOTE, anon_sym_null, anon_sym_LT,
       anon_sym_GT, anon_sym_final, sym_void_type, anon_sym_var, anon_sym_Function,
       sym_const_builtin, sym_identifier])]),
     (72564, 8, [(ACTIONS 3, 1, [anon_sym_SLASH_SLASH]), (ACTIONS 5, 1, [anon_sym_SLASH_STAR]),
       (ACTIONS 7, 1, [anon_sym_SLASH_SLASH_SLASH]), (ACTIONS 9, 1, [sym__block_comment]),
       (ACTIONS 11, 1, [sym__documentation_block_comment]), (STATE 1435, 2, [sym_comment,
       sym_documentation_comment]), (ACTIONS 2714, 6, [anon_sym_QMARK, anon_sym_LT, anon_sym_GT,
       anon_sym_PIPE, anon_sym_AMP, anon_sym_GT_GT]), (ACTIONS 2712, 24, [anon_sym_RBRACE,
       anon_sym_COMMA, anon_sym_RBRACK, anon_sym_COLON, anon_sym_RPAREN, anon_sym_QMARK_QMARK,
       sym_equality_operator, anon_sym_LT_EQ, anon_sym_GT_EQ, anon_sym_CARET, anon_sym_LT_LT,
       anon_sym_GT_GT_GT, sym__additive_operator, anon_sym_is, anon_sym_as, anon_sym_DOT_DOT,
       anon_sym_QMARK_DOT_DOT, anon_sym_SEMI, anon_sym_EQ_GT, anon_sym_case, anon_sym_else,
       anon_sym_Function, anon_sym_AMP_AMP, anon_sym_PIPE_PIPE])]),
     (72618, 8, [(ACTIONS 3, 1, [anon_sym_SLASH_SLASH]), (ACTIONS 5, 1, [anon_sym_SLASH_STAR]),
       (ACTIONS 7, 1, [anon_sym_SLASH_SLASH_SLASH]), (ACTIONS 9, 1, [sym__block_comment]),
       (ACTIONS 11, 1, [sym__documentation_block_comment]), (STATE 1436, 2, [sym_comment,
       sym_documentation_comment]), (ACTIONS 2770, 6, [anon_sym_QMARK, anon_sym_LT, anon_sym_GT,
       anon_sym_PIPE, anon_sym_AMP, anon_sym_GT_GT]), (ACTIONS 2768, 24, [anon_sym_RBRACE,
       anon_sym_COMMA, anon_sym_RBRACK, anon_sym_COLON, anon_sym_RPAREN, anon_sym_QMARK_QMARK,
       sym_equality_operator, anon_sym_LT_EQ, anon_sym_GT_EQ, anon_sym_CARET, anon_sym_LT_LT,
       anon_sym_GT_GT_GT, sym__additive_operator, anon_sym_is, anon_sym_as, anon_sym_DOT_DOT,
       anon_sym_QMARK_DOT_DOT, anon_sym_SEMI, anon_sym_EQ_GT, anon_sym_case, anon_sym_else,
       anon_sym_Function, anon_sym_AMP_AMP, anon_sym_PIPE_PIPE])])]"

lemma small_run_527: "small_run 1434 72510 ts_small_parse_table_527 1437 72672"
  by (simp add: small_simps ts_small_parse_table_527_def)

definition ts_small_parse_table_528 :: "small_group list" where
  "ts_small_parse_table_528 = [
     (72672, 8, [(ACTIONS 3, 1, [anon_sym_SLASH_SLASH]), (ACTIONS 5, 1, [anon_sym_SLASH_STAR]),
       (ACTIONS 7, 1, [anon_sym_SLASH_SLASH_SLASH]), (ACTIONS 9, 1, [sym__block_comment]),
       (ACTIONS 11, 1, [sym__documentation_block_comment]), (STATE 1437, 2, [sym_comment,
       sym_documentation_comment]), (ACTIONS 2735, 6, [anon_sym_QMARK, anon_sym_LT, anon_sym_GT,
       anon_sym_PIPE, anon_sym_AMP, anon_sym_GT_GT]), (ACTIONS 2733, 24, [anon_sym_RBRACE,
       anon_sym_COMMA, anon_sym_RBRACK, anon_sym_COLON, anon_sym_RPAREN, anon_sym_QMARK_QMARK,
       sym_equality_operator, anon_sym_LT_EQ, anon_sym_GT_EQ, anon_sym_CARET, anon_sym_LT_LT,
       anon_sym_GT_GT_GT, sym__additive_operator, anon_sym_is, anon_sym_as, anon_sym_DOT_DOT,
       anon_sym_QMARK_DOT_DOT, anon_sym_SEMI, anon_sym_EQ_GT, anon_sym_case, anon_sym_else,
       anon_sym_Function, anon_sym_AMP_AMP, anon_sym_PIPE_PIPE])]),
     (72726, 10, [(ACTIONS 3, 1, [anon_sym_SLASH_SLASH]), (ACTIONS 5, 1,
       [anon_sym_SLASH_STAR]), (ACTIONS 7, 1, [anon_sym_SLASH_SLASH_SLASH]), (ACTIONS 9, 1,
       [sym__block_comment]), (ACTIONS 11, 1, [sym__documentation_block_comment]), (ACTIONS 3486,
       1, [anon_sym_DOT]), (STATE 1545, 1, [sym__type_dot_identifier]), (STATE 1438, 2,
       [sym_comment, sym_documentation_comment]), (ACTIONS 1320, 8, [anon_sym_QMARK, anon_sym_LT,
       anon_sym_GT, anon_sym_PIPE, anon_sym_AMP, anon_sym_GT_GT, anon_sym_as, anon_sym_async]),
       (ACTIONS 2015, 20, [anon_sym_LBRACE, anon_sym_COMMA, anon_sym_QMARK_QMARK,
       sym_equality_operator, anon_sym_LT_EQ, anon_sym_GT_EQ, anon_sym_CARET, anon_sym_LT_LT,
       anon_sym_GT_GT_GT, sym__additive_operator, anon_sym_is, anon_sym_DOT_DOT,
       anon_sym_QMARK_DOT_DOT, anon_sym_SEMI, anon_sym_EQ_GT, anon_sym_async_STAR,
       anon_sym_sync_STAR, anon_sym_Function, anon_sym_AMP_AMP, anon_sym_PIPE_PIPE])]),
     (72784, 8, [(ACTIONS 3, 1, [anon_sym_SLASH_SLASH]), (ACTIONS 5, 1, [anon_sym_SLASH_STAR]),
       (ACTIONS 7, 1, [anon_sym_SLASH_SLASH_SLASH]), (ACTIONS 9, 1, [sym__block_comment]),
       (ACTIONS 11, 1, [sym__documentation_block_comment]), (STATE 1439, 2, [sym_comment,
       sym_documentation_comment]), (ACTIONS 2572, 6, [anon_sym_QMARK, anon_sym_LT, anon_sym_GT,
       anon_sym_PIPE, anon_sym_AMP, anon_sym_GT_GT]), (ACTIONS 2567, 24, [anon_sym_RBRACE,
       anon_sym_COMMA, anon_sym_RBRACK, anon_sym_COLON, anon_sym_RPAREN, anon_sym_QMARK_QMARK,
       sym_equality_operator, anon_sym_LT_EQ, anon_sym_GT_EQ, anon_sym_CARET, anon_sym_LT_LT,
       anon_sym_GT_GT_GT, sym__additive_operator, anon_sym_is, anon_sym_as, anon_sym_DOT_DOT,
       anon_sym_QMARK_DOT_DOT, anon_sym_SEMI, anon_sym_EQ_GT, anon_sym_case, anon_sym_else,
       anon_sym_Function, anon_sym_AMP_AMP, anon_sym_PIPE_PIPE])])]"

lemma small_run_528: "small_run 1437 72672 ts_small_parse_table_528 1440 72838"
  by (simp add: small_simps ts_small_parse_table_528_def)

definition ts_small_parse_table_529 :: "small_group list" where
  "ts_small_parse_table_529 = [
     (72838, 8, [(ACTIONS 3, 1, [anon_sym_SLASH_SLASH]), (ACTIONS 5, 1, [anon_sym_SLASH_STAR]),
       (ACTIONS 7, 1, [anon_sym_SLASH_SLASH_SLASH]), (ACTIONS 9, 1, [sym__block_comment]),
       (ACTIONS 11, 1, [sym__documentation_block_comment]), (STATE 1440, 2, [sym_comment,
       sym_documentation_comment]), (ACTIONS 2801, 6, [anon_sym_QMARK, anon_sym_LT, anon_sym_GT,
       anon_sym_PIPE, anon_sym_AMP, anon_sym_GT_GT]), (ACTIONS 2799, 24, [anon_sym_RBRACE,
       anon_sym_COMMA, anon_sym_RBRACK, anon_sym_COLON, anon_sym_RPAREN, anon_sym_QMARK_QMARK,
       sym_equality_operator, anon_sym_LT_EQ, anon_sym_GT_EQ, anon_sym_CARET, anon_sym_LT_LT,
       anon_sym_GT_GT_GT, sym__additive_operator, anon_sym_is, anon_sym_as, anon_sym_DOT_DOT,
       anon_sym_QMARK_DOT_DOT, anon_sym_SEMI, anon_sym_EQ_GT, anon_sym_case, anon_sym_else,
       anon_sym_Function, anon_sym_AMP_AMP, anon_sym_PIPE_PIPE])]),
     (72892, 8, [(ACTIONS 3, 1, [anon_sym_SLASH_SLASH]), (ACTIONS 5, 1, [anon_sym_SLASH_STAR]),
       (ACTIONS 7, 1, [anon_sym_SLASH_SLASH_SLASH]), (ACTIONS 9, 1, [sym__block_comment]),
       (ACTIONS 11, 1, [sym__documentation_block_comment]), (STATE 1441, 2, [sym_comment,
       sym_documentation_comment]), (ACTIONS 2555, 6, [anon_sym_QMARK, anon_sym_LT, anon_sym_GT,
       anon_sym_PIPE, anon_sym_AMP, anon_sym_GT_GT]), (ACTIONS 2550, 24, [anon_sym_RBRACE,
       anon_sym_COMMA, anon_sym_RBRACK, anon_sym_COLON, anon_sym_RPAREN, anon_sym_QMARK_QMARK,
       sym_equality_operator, anon_sym_LT_EQ, anon_sym_GT_EQ, anon_sym_CARET, anon_sym_LT_LT,
       anon_sym_GT_GT_GT, sym__additive_operator, anon_sym_is, anon_sym_as, anon_sym_DOT_DOT,
       anon_sym_QMARK_DOT_DOT, anon_sym_SEMI, anon_sym_EQ_GT, anon_sym_case, anon_sym_else,
       anon_sym_Function, anon_sym_AMP_AMP, anon_sym_PIPE_PIPE])]),
     (72946, 8, [(ACTIONS 3, 1, [anon_sym_SLASH_SLASH]), (ACTIONS 5, 1, [anon_sym_SLASH_STAR]),
       (ACTIONS 7, 1, [anon_sym_SLASH_SLASH_SLASH]), (ACTIONS 9, 1, [sym__block_comment]),
       (ACTIONS 11, 1, [sym__documentation_block_comment]), (STATE 1442, 2, [sym_comment,
       sym_documentation_comment]), (ACTIONS 2624, 6, [anon_sym_QMARK, anon_sym_LT, anon_sym_GT,
       anon_sym_PIPE, anon_sym_AMP, anon_sym_GT_GT]), (ACTIONS 2622, 24, [anon_sym_RBRACE,
       anon_sym_COMMA, anon_sym_RBRACK, anon_sym_COLON, anon_sym_RPAREN, anon_sym_QMARK_QMARK,
       sym_equality_operator, anon_sym_LT_EQ, anon_sym_GT_EQ, anon_sym_CARET, anon_sym_LT_LT,
       anon_sym_GT_GT_GT, sym__additive_operator, anon_sym_is, anon_sym_as, anon_sym_DOT_DOT,
       anon_sym_QMARK_DOT_DOT, anon_sym_SEMI, anon_sym_EQ_GT, anon_sym_case, anon_sym_else,
       anon_sym_Function, anon_sym_AMP_AMP, anon_sym_PIPE_PIPE])])]"

lemma small_run_529: "small_run 1440 72838 ts_small_parse_table_529 1443 73000"
  by (simp add: small_simps ts_small_parse_table_529_def)

definition ts_small_parse_table_530 :: "small_group list" where
  "ts_small_parse_table_530 = [
     (73000, 12, [(ACTIONS 3, 1, [anon_sym_SLASH_SLASH]), (ACTIONS 5, 1,
       [anon_sym_SLASH_STAR]), (ACTIONS 7, 1, [anon_sym_SLASH_SLASH_SLASH]), (ACTIONS 9, 1,
       [sym__block_comment]), (ACTIONS 11, 1, [sym__documentation_block_comment]), (ACTIONS 3488,
       1, [anon_sym_QMARK]), (ACTIONS 3491, 1, [anon_sym_LT]), (STATE 1491, 1,
       [sym_type_arguments]), (STATE 1539, 1, [sym_nullable_type]), (STATE 1443, 2, [sym_comment,
       sym_documentation_comment]), (ACTIONS 2539, 6, [anon_sym_GT, anon_sym_PIPE, anon_sym_AMP,
       anon_sym_GT_GT, anon_sym_as, anon_sym_async]), (ACTIONS 2531, 20, [anon_sym_LBRACE,
       anon_sym_COMMA, anon_sym_QMARK_QMARK, sym_equality_operator, anon_sym_LT_EQ,
       anon_sym_GT_EQ, anon_sym_CARET, anon_sym_LT_LT, anon_sym_GT_GT_GT, sym__additive_operator,
       anon_sym_is, anon_sym_DOT_DOT, anon_sym_QMARK_DOT_DOT, anon_sym_SEMI, anon_sym_EQ_GT,
       anon_sym_async_STAR, anon_sym_sync_STAR, anon_sym_Function, anon_sym_AMP_AMP,
       anon_sym_PIPE_PIPE])]),
     (73062, 8, [(ACTIONS 3, 1, [anon_sym_SLASH_SLASH]), (ACTIONS 5, 1, [anon_sym_SLASH_STAR]),
       (ACTIONS 7, 1, [anon_sym_SLASH_SLASH_SLASH]), (ACTIONS 9, 1, [sym__block_comment]),
       (ACTIONS 11, 1, [sym__documentation_block_comment]), (STATE 1444, 2, [sym_comment,
       sym_documentation_comment]), (ACTIONS 3414, 13, [anon_sym_POUND, sym_hex_integer_literal,
       anon_sym_DQUOTE_DQUOTE_DQUOTE, anon_sym_SQUOTE_SQUOTE_SQUOTE,
       anon_sym_r_DQUOTE_DQUOTE_DQUOTE, anon_sym_r_SQUOTE_SQUOTE_SQUOTE, anon_sym_LBRACE,
       anon_sym_LBRACK, anon_sym_LPAREN, sym_equality_operator, anon_sym_LT_EQ, anon_sym_GT_EQ,
       sym_minus_operator]), (ACTIONS 3412, 17, [sym_decimal_integer_literal,
       sym_decimal_floating_point_literal, anon_sym_true, anon_sym_false, anon_sym_DQUOTE,
       anon_sym_SQUOTE, anon_sym_r_DQUOTE, anon_sym_r_SQUOTE, anon_sym_null, anon_sym_LT,
       anon_sym_GT, anon_sym_final, sym_void_type, anon_sym_var, anon_sym_Function,
       sym_const_builtin, sym_identifier])]),
     (73116, 9, [(ACTIONS 3, 1, [anon_sym_SLASH_SLASH]), (ACTIONS 5, 1, [anon_sym_SLASH_STAR]),
       (ACTIONS 7, 1, [anon_sym_SLASH_SLASH_SLASH]), (ACTIONS 9, 1, [sym__block_comment]),
       (ACTIONS 11, 1, [sym__documentation_block_comment]), (ACTIONS 2548, 1,
       [anon_sym_Function]), (STATE 1445, 2, [sym_comment, sym_documentation_comment]), (ACTIONS
       2546, 6, [anon_sym_QMARK, anon_sym_LT, anon_sym_GT, anon_sym_PIPE, anon_sym_AMP,
       anon_sym_GT_GT]), (ACTIONS 2541, 23, [anon_sym_RBRACE, anon_sym_COMMA, anon_sym_RBRACK,
       anon_sym_COLON, anon_sym_RPAREN, anon_sym_QMARK_QMARK, sym_equality_operator,
       anon_sym_LT_EQ, anon_sym_GT_EQ, anon_sym_CARET, anon_sym_LT_LT, anon_sym_GT_GT_GT,
       sym__additive_operator, anon_sym_is, anon_sym_as, anon_sym_DOT_DOT,
       anon_sym_QMARK_DOT_DOT, anon_sym_SEMI, anon_sym_EQ_GT, anon_sym_case, anon_sym_else,
       anon_sym_AMP_AMP, anon_sym_PIPE_PIPE])])]"

lemma small_run_530: "small_run 1443 73000 ts_small_parse_table_530 1446 73172"
  by (simp add: small_simps ts_small_parse_table_530_def)

definition ts_small_parse_table_531 :: "small_group list" where
  "ts_small_parse_table_531 = [
     (73172, 8, [(ACTIONS 3, 1, [anon_sym_SLASH_SLASH]), (ACTIONS 5, 1, [anon_sym_SLASH_STAR]),
       (ACTIONS 7, 1, [anon_sym_SLASH_SLASH_SLASH]), (ACTIONS 9, 1, [sym__block_comment]),
       (ACTIONS 11, 1, [sym__documentation_block_comment]), (STATE 1446, 2, [sym_comment,
       sym_documentation_comment]), (ACTIONS 2722, 6, [anon_sym_QMARK, anon_sym_LT, anon_sym_GT,
       anon_sym_PIPE, anon_sym_AMP, anon_sym_GT_GT]), (ACTIONS 2720, 24, [anon_sym_RBRACE,
       anon_sym_COMMA, anon_sym_RBRACK, anon_sym_COLON, anon_sym_RPAREN, anon_sym_QMARK_QMARK,
       sym_equality_operator, anon_sym_LT_EQ, anon_sym_GT_EQ, anon_sym_CARET, anon_sym_LT_LT,
       anon_sym_GT_GT_GT, sym__additive_operator, anon_sym_is, anon_sym_as, anon_sym_DOT_DOT,
       anon_sym_QMARK_DOT_DOT, anon_sym_SEMI, anon_sym_EQ_GT, anon_sym_case, anon_sym_else,
       anon_sym_Function, anon_sym_AMP_AMP, anon_sym_PIPE_PIPE])]),
     (73226, 8, [(ACTIONS 3, 1, [anon_sym_SLASH_SLASH]), (ACTIONS 5, 1, [anon_sym_SLASH_STAR]),
       (ACTIONS 7, 1, [anon_sym_SLASH_SLASH_SLASH]), (ACTIONS 9, 1, [sym__block_comment]),
       (ACTIONS 11, 1, [sym__documentation_block_comment]), (STATE 1447, 2, [sym_comment,
       sym_documentation_comment]), (ACTIONS 2608, 6, [anon_sym_QMARK, anon_sym_LT, anon_sym_GT,
       anon_sym_PIPE, anon_sym_AMP, anon_sym_GT_GT]), (ACTIONS 2606, 24, [anon_sym_RBRACE,
       anon_sym_COMMA, anon_sym_RBRACK, anon_sym_COLON, anon_sym_RPAREN, anon_sym_QMARK_QMARK,
       sym_equality_operator, anon_sym_LT_EQ, anon_sym_GT_EQ, anon_sym_CARET, anon_sym_LT_LT,
       anon_sym_GT_GT_GT, sym__additive_operator, anon_sym_is, anon_sym_as, anon_sym_DOT_DOT,
       anon_sym_QMARK_DOT_DOT, anon_sym_SEMI, anon_sym_EQ_GT, anon_sym_case, anon_sym_else,
       anon_sym_Function, anon_sym_AMP_AMP, anon_sym_PIPE_PIPE])]),
     (73280, 10, [(ACTIONS 3, 1, [anon_sym_SLASH_SLASH]), (ACTIONS 5, 1,
       [anon_sym_SLASH_STAR]), (ACTIONS 7, 1, [anon_sym_SLASH_SLASH_SLASH]), (ACTIONS 9, 1,
       [sym__block_comment]), (ACTIONS 11, 1, [sym__documentation_block_comment]), (ACTIONS 3377,
       1, [anon_sym_QMARK]), (STATE 1500, 1, [sym_nullable_type]), (STATE 1448, 2, [sym_comment,
       sym_documentation_comment]), (ACTIONS 2546, 5, [anon_sym_LT, anon_sym_GT, anon_sym_PIPE,
       anon_sym_AMP, anon_sym_GT_GT]), (ACTIONS 2541, 23, [anon_sym_RBRACE, anon_sym_COMMA,
       anon_sym_RBRACK, anon_sym_COLON, anon_sym_RPAREN, anon_sym_QMARK_QMARK,
       sym_equality_operator, anon_sym_LT_EQ, anon_sym_GT_EQ, anon_sym_CARET, anon_sym_LT_LT,
       anon_sym_GT_GT_GT, sym__additive_operator, anon_sym_is, anon_sym_as, anon_sym_DOT_DOT,
       anon_sym_QMARK_DOT_DOT, anon_sym_SEMI, anon_sym_EQ_GT, anon_sym_case, anon_sym_else,
       anon_sym_AMP_AMP, anon_sym_PIPE_PIPE])])]"

lemma small_run_531: "small_run 1446 73172 ts_small_parse_table_531 1449 73338"
  by (simp add: small_simps ts_small_parse_table_531_def)

definition ts_small_parse_table_532 :: "small_group list" where
  "ts_small_parse_table_532 = [
     (73338, 8, [(ACTIONS 3, 1, [anon_sym_SLASH_SLASH]), (ACTIONS 5, 1, [anon_sym_SLASH_STAR]),
       (ACTIONS 7, 1, [anon_sym_SLASH_SLASH_SLASH]), (ACTIONS 9, 1, [sym__block_comment]),
       (ACTIONS 11, 1, [sym__documentation_block_comment]), (STATE 1449, 2, [sym_comment,
       sym_documentation_comment]), (ACTIONS 2728, 6, [anon_sym_QMARK, anon_sym_LT, anon_sym_GT,
       anon_sym_PIPE, anon_sym_AMP, anon_sym_GT_GT]), (ACTIONS 2726, 24, [anon_sym_RBRACE,
       anon_sym_COMMA, anon_sym_RBRACK, anon_sym_COLON, anon_sym_RPAREN, anon_sym_QMARK_QMARK,
       sym_equality_operator, anon_sym_LT_EQ, anon_sym_GT_EQ, anon_sym_CARET, anon_sym_LT_LT,
       anon_sym_GT_GT_GT, sym__additive_operator, anon_sym_is, anon_sym_as, anon_sym_DOT_DOT,
       anon_sym_QMARK_DOT_DOT, anon_sym_SEMI, anon_sym_EQ_GT, anon_sym_case, anon_sym_else,
       anon_sym_Function, anon_sym_AMP_AMP, anon_sym_PIPE_PIPE])]),
     (73392, 8, [(ACTIONS 3, 1, [anon_sym_SLASH_SLASH]), (ACTIONS 5, 1, [anon_sym_SLASH_STAR]),
       (ACTIONS 7, 1, [anon_sym_SLASH_SLASH_SLASH]), (ACTIONS 9, 1, [sym__block_comment]),
       (ACTIONS 11, 1, [sym__documentation_block_comment]), (STATE 1450, 2, [sym_comment,
       sym_documentation_comment]), (ACTIONS 3306, 13, [anon_sym_POUND, sym_hex_integer_literal,
       anon_sym_DQUOTE_DQUOTE_DQUOTE, anon_sym_SQUOTE_SQUOTE_SQUOTE,
       anon_sym_r_DQUOTE_DQUOTE_DQUOTE, anon_sym_r_SQUOTE_SQUOTE_SQUOTE, anon_sym_LBRACE,
       anon_sym_LBRACK, anon_sym_LPAREN, anon_sym_LT, sym_increment_operator, anon_sym_BANG,
       anon_sym_TILDE]), (ACTIONS 3304, 17, [sym_decimal_integer_literal,
       sym_decimal_floating_point_literal, anon_sym_true, anon_sym_false, anon_sym_DQUOTE,
       anon_sym_SQUOTE, anon_sym_r_DQUOTE, anon_sym_r_SQUOTE, anon_sym_null, sym_minus_operator,
       anon_sym_await, anon_sym_switch, anon_sym_new, sym_const_builtin, anon_sym_this,
       anon_sym_super, sym_identifier])]),
     (73446, 8, [(ACTIONS 3, 1, [anon_sym_SLASH_SLASH]), (ACTIONS 5, 1, [anon_sym_SLASH_STAR]),
       (ACTIONS 7, 1, [anon_sym_SLASH_SLASH_SLASH]), (ACTIONS 9, 1, [sym__block_comment]),
       (ACTIONS 11, 1, [sym__documentation_block_comment]), (STATE 1451, 2, [sym_comment,
       sym_documentation_comment]), (ACTIONS 3496, 13, [anon_sym_POUND, sym_hex_integer_literal,
       anon_sym_DQUOTE_DQUOTE_DQUOTE, anon_sym_SQUOTE_SQUOTE_SQUOTE,
       anon_sym_r_DQUOTE_DQUOTE_DQUOTE, anon_sym_r_SQUOTE_SQUOTE_SQUOTE, anon_sym_LBRACE,
       anon_sym_LBRACK, anon_sym_LPAREN, anon_sym_LT, sym_increment_operator, anon_sym_BANG,
       anon_sym_TILDE]), (ACTIONS 3494, 17, [sym_decimal_integer_literal,
       sym_decimal_floating_point_literal, anon_sym_true, anon_sym_false, anon_sym_DQUOTE,
       anon_sym_SQUOTE, anon_sym_r_DQUOTE, anon_sym_r_SQUOTE, anon_sym_null, sym_minus_operator,
       anon_sym_await, anon_sym_switch, anon_sym_new, sym_const_builtin, anon_sym_this,
       anon_sym_super, sym_identifier])])]"

lemma small_run_532: "small_run 1449 73338 ts_small_parse_table_532 1452 73500"
  by (simp add: small_simps ts_small_parse_table_532_def)

definition ts_small_parse_table_533 :: "small_group list" where
  "ts_small_parse_table_533 = [
     (73500, 8, [(ACTIONS 3, 1, [anon_sym_SLASH_SLASH]), (ACTIONS 5, 1, [anon_sym_SLASH_STAR]),
       (ACTIONS 7, 1, [anon_sym_SLASH_SLASH_SLASH]), (ACTIONS 9, 1, [sym__block_comment]),
       (ACTIONS 11, 1, [sym__documentation_block_comment]), (STATE 1452, 2, [sym_comment,
       sym_documentation_comment]), (ACTIONS 2934, 7, [anon_sym_QMARK, anon_sym_LT, anon_sym_GT,
       anon_sym_PIPE, anon_sym_AMP, anon_sym_GT_GT, anon_sym_SLASH]), (ACTIONS 2932, 22,
       [anon_sym_RBRACE, anon_sym_COMMA, anon_sym_RBRACK, anon_sym_COLON, anon_sym_RPAREN,
       anon_sym_QMARK_QMARK, sym_equality_operator, anon_sym_LT_EQ, anon_sym_GT_EQ,
       anon_sym_CARET, anon_sym_LT_LT, anon_sym_GT_GT_GT, sym__additive_operator, anon_sym_STAR,
       anon_sym_PERCENT, anon_sym_TILDE_SLASH, anon_sym_is, anon_sym_as, anon_sym_EQ_GT,
       anon_sym_when, anon_sym_AMP_AMP, anon_sym_PIPE_PIPE])]),
     (73553, 8, [(ACTIONS 3, 1, [anon_sym_SLASH_SLASH]), (ACTIONS 5, 1, [anon_sym_SLASH_STAR]),
       (ACTIONS 7, 1, [anon_sym_SLASH_SLASH_SLASH]), (ACTIONS 9, 1, [sym__block_comment]),
       (ACTIONS 11, 1, [sym__documentation_block_comment]), (STATE 1453, 2, [sym_comment,
       sym_documentation_comment]), (ACTIONS 2974, 6, [anon_sym_QMARK, anon_sym_LT, anon_sym_GT,
       anon_sym_PIPE, anon_sym_AMP, anon_sym_GT_GT]), (ACTIONS 2972, 23, [anon_sym_RBRACE,
       anon_sym_COMMA, anon_sym_RBRACK, anon_sym_COLON, anon_sym_RPAREN, anon_sym_QMARK_QMARK,
       sym_equality_operator, anon_sym_LT_EQ, anon_sym_GT_EQ, anon_sym_CARET, anon_sym_LT_LT,
       anon_sym_GT_GT_GT, sym__additive_operator, anon_sym_is, anon_sym_as, anon_sym_DOT_DOT,
       anon_sym_QMARK_DOT_DOT, anon_sym_SEMI, anon_sym_EQ_GT, anon_sym_case, anon_sym_else,
       anon_sym_AMP_AMP, anon_sym_PIPE_PIPE])]),
     (73606, 11, [(ACTIONS 3, 1, [anon_sym_SLASH_SLASH]), (ACTIONS 5, 1,
       [anon_sym_SLASH_STAR]), (ACTIONS 7, 1, [anon_sym_SLASH_SLASH_SLASH]), (ACTIONS 9, 1,
       [sym__block_comment]), (ACTIONS 11, 1, [sym__documentation_block_comment]), (ACTIONS 19,
       1, [anon_sym_AT]), (STATE 1473, 1, [aux_sym__metadata_repeat1]), (STATE 1571, 1,
       [sym_annotation]), (ACTIONS 3263, 2, [anon_sym_LPAREN, sym_part_of_builtin]), (STATE 1454,
       2, [sym_comment, sym_documentation_comment]), (ACTIONS 3261, 24, [anon_sym_part,
       anon_sym_enum, anon_sym_final, anon_sym_inline, anon_sym_class, anon_sym_extension,
       sym_void_type, anon_sym_var, anon_sym_library, anon_sym_export, anon_sym_Function,
       anon_sym_get, anon_sym_import, anon_sym_interface, anon_sym_base, anon_sym_abstract,
       anon_sym_sealed, anon_sym_mixin, anon_sym_set, anon_sym_typedef, sym_const_builtin,
       anon_sym_late, anon_sym_external, sym_identifier])])]"

lemma small_run_533: "small_run 1452 73500 ts_small_parse_table_533 1455 73665"
  by (simp add: small_simps ts_small_parse_table_533_def)

definition ts_small_parse_table_534 :: "small_group list" where
  "ts_small_parse_table_534 = [
     (73665, 12, [(ACTIONS 3, 1, [anon_sym_SLASH_SLASH]), (ACTIONS 5, 1,
       [anon_sym_SLASH_STAR]), (ACTIONS 7, 1, [anon_sym_SLASH_SLASH_SLASH]), (ACTIONS 9, 1,
       [sym__block_comment]), (ACTIONS 11, 1, [sym__documentation_block_comment]), (ACTIONS 3498,
       1, [anon_sym_Function]), (STATE 1422, 1, [sym__function_builtin_identifier]), (STATE 1462,
       1, [aux_sym__function_type_tails]), (STATE 1615, 1, [sym__function_type_tail]), (STATE
       1455, 2, [sym_comment, sym_documentation_comment]), (ACTIONS 2415, 6, [anon_sym_QMARK,
       anon_sym_LT, anon_sym_GT, anon_sym_PIPE, anon_sym_AMP, anon_sym_GT_GT]), (ACTIONS 2413,
       19, [anon_sym_RBRACE, anon_sym_COMMA, anon_sym_RBRACK, anon_sym_COLON, anon_sym_RPAREN,
       anon_sym_QMARK_QMARK, sym_equality_operator, anon_sym_LT_EQ, anon_sym_GT_EQ,
       anon_sym_CARET, anon_sym_LT_LT, anon_sym_GT_GT_GT, sym__additive_operator, anon_sym_is,
       anon_sym_as, anon_sym_EQ_GT, anon_sym_when, anon_sym_AMP_AMP, anon_sym_PIPE_PIPE])]),
     (73726, 10, [(ACTIONS 3, 1, [anon_sym_SLASH_SLASH]), (ACTIONS 5, 1,
       [anon_sym_SLASH_STAR]), (ACTIONS 7, 1, [anon_sym_SLASH_SLASH_SLASH]), (ACTIONS 9, 1,
       [sym__block_comment]), (ACTIONS 11, 1, [sym__documentation_block_comment]), (STATE 352, 1,
       [sym_logical_or_operator]), (STATE 1464, 1, [aux_sym_logical_or_expression_repeat1]),
       (STATE 1456, 2, [sym_comment, sym_documentation_comment]), (ACTIONS 2600, 8,
       [anon_sym_QMARK, anon_sym_LT, anon_sym_GT, anon_sym_PIPE, anon_sym_AMP, anon_sym_GT_GT,
       anon_sym_as, anon_sym_async]), (ACTIONS 2598, 19, [anon_sym_LBRACE, anon_sym_COMMA,
       anon_sym_QMARK_QMARK, sym_equality_operator, anon_sym_LT_EQ, anon_sym_GT_EQ,
       anon_sym_CARET, anon_sym_LT_LT, anon_sym_GT_GT_GT, sym__additive_operator, anon_sym_is,
       anon_sym_DOT_DOT, anon_sym_QMARK_DOT_DOT, anon_sym_SEMI, anon_sym_EQ_GT,
       anon_sym_async_STAR, anon_sym_sync_STAR, anon_sym_AMP_AMP, anon_sym_PIPE_PIPE])]),
     (73783, 10, [(ACTIONS 3, 1, [anon_sym_SLASH_SLASH]), (ACTIONS 5, 1,
       [anon_sym_SLASH_STAR]), (ACTIONS 7, 1, [anon_sym_SLASH_SLASH_SLASH]), (ACTIONS 9, 1,
       [sym__block_comment]), (ACTIONS 11, 1, [sym__documentation_block_comment]), (STATE 354, 1,
       [sym_logical_and_operator]), (STATE 1465, 1, [aux_sym_logical_and_expression_repeat1]),
       (STATE 1457, 2, [sym_comment, sym_documentation_comment]), (ACTIONS 2604, 8,
       [anon_sym_QMARK, anon_sym_LT, anon_sym_GT, anon_sym_PIPE, anon_sym_AMP, anon_sym_GT_GT,
       anon_sym_as, anon_sym_async]), (ACTIONS 2602, 19, [anon_sym_LBRACE, anon_sym_COMMA,
       anon_sym_QMARK_QMARK, sym_equality_operator, anon_sym_LT_EQ, anon_sym_GT_EQ,
       anon_sym_CARET, anon_sym_LT_LT, anon_sym_GT_GT_GT, sym__additive_operator, anon_sym_is,
       anon_sym_DOT_DOT, anon_sym_QMARK_DOT_DOT, anon_sym_SEMI, anon_sym_EQ_GT,
       anon_sym_async_STAR, anon_sym_sync_STAR, anon_sym_AMP_AMP, anon_sym_PIPE_PIPE])])]"

lemma small_run_534: "small_run 1455 73665 ts_small_parse_table_534 1458 73840"
  by (simp add: small_simps ts_small_parse_table_534_def)

definition ts_small_parse_table_535 :: "small_group list" where
  "ts_small_parse_table_535 = [
     (73840, 8, [(ACTIONS 3, 1, [anon_sym_SLASH_SLASH]), (ACTIONS 5, 1, [anon_sym_SLASH_STAR]),
       (ACTIONS 7, 1, [anon_sym_SLASH_SLASH_SLASH]), (ACTIONS 9, 1, [sym__block_comment]),
       (ACTIONS 11, 1, [sym__documentation_block_comment]), (STATE 1458, 2, [sym_comment,
       sym_documentation_comment]), (ACTIONS 2747, 8, [anon_sym_QMARK, anon_sym_LT, anon_sym_GT,
       anon_sym_PIPE, anon_sym_AMP, anon_sym_GT_GT, anon_sym_as, anon_sym_async]), (ACTIONS 2745,
       21, [anon_sym_LBRACE, anon_sym_COMMA, anon_sym_LPAREN, anon_sym_QMARK_QMARK,
       sym_equality_operator, anon_sym_LT_EQ, anon_sym_GT_EQ, anon_sym_CARET, anon_sym_LT_LT,
       anon_sym_GT_GT_GT, sym__additive_operator, anon_sym_is, anon_sym_DOT_DOT,
       anon_sym_QMARK_DOT_DOT, anon_sym_SEMI, anon_sym_EQ_GT, anon_sym_async_STAR,
       anon_sym_sync_STAR, anon_sym_Function, anon_sym_AMP_AMP, anon_sym_PIPE_PIPE])]),
     (73893, 10, [(ACTIONS 3, 1, [anon_sym_SLASH_SLASH]), (ACTIONS 5, 1,
       [anon_sym_SLASH_STAR]), (ACTIONS 7, 1, [anon_sym_SLASH_SLASH_SLASH]), (ACTIONS 9, 1,
       [sym__block_comment]), (ACTIONS 11, 1, [sym__documentation_block_comment]), (ACTIONS 3500,
       1, [anon_sym_QMARK]), (STATE 1507, 1, [sym_nullable_type]), (STATE 1459, 2, [sym_comment,
       sym_documentation_comment]), (ACTIONS 2572, 7, [anon_sym_LT, anon_sym_GT, anon_sym_PIPE,
       anon_sym_AMP, anon_sym_GT_GT, anon_sym_as, anon_sym_async]), (ACTIONS 2567, 20,
       [anon_sym_LBRACE, anon_sym_COMMA, anon_sym_QMARK_QMARK, sym_equality_operator,
       anon_sym_LT_EQ, anon_sym_GT_EQ, anon_sym_CARET, anon_sym_LT_LT, anon_sym_GT_GT_GT,
       sym__additive_operator, anon_sym_is, anon_sym_DOT_DOT, anon_sym_QMARK_DOT_DOT,
       anon_sym_SEMI, anon_sym_EQ_GT, anon_sym_async_STAR, anon_sym_sync_STAR, anon_sym_Function,
       anon_sym_AMP_AMP, anon_sym_PIPE_PIPE])]),
     (73950, 12, [(ACTIONS 3, 1, [anon_sym_SLASH_SLASH]), (ACTIONS 5, 1,
       [anon_sym_SLASH_STAR]), (ACTIONS 7, 1, [anon_sym_SLASH_SLASH_SLASH]), (ACTIONS 9, 1,
       [sym__block_comment]), (ACTIONS 11, 1, [sym__documentation_block_comment]), (ACTIONS 3498,
       1, [anon_sym_Function]), (STATE 1422, 1, [sym__function_builtin_identifier]), (STATE 1462,
       1, [aux_sym__function_type_tails]), (STATE 1615, 1, [sym__function_type_tail]), (STATE
       1460, 2, [sym_comment, sym_documentation_comment]), (ACTIONS 2437, 6, [anon_sym_QMARK,
       anon_sym_LT, anon_sym_GT, anon_sym_PIPE, anon_sym_AMP, anon_sym_GT_GT]), (ACTIONS 2435,
       19, [anon_sym_RBRACE, anon_sym_COMMA, anon_sym_RBRACK, anon_sym_COLON, anon_sym_RPAREN,
       anon_sym_QMARK_QMARK, sym_equality_operator, anon_sym_LT_EQ, anon_sym_GT_EQ,
       anon_sym_CARET, anon_sym_LT_LT, anon_sym_GT_GT_GT, sym__additive_operator, anon_sym_is,
       anon_sym_as, anon_sym_EQ_GT, anon_sym_when, anon_sym_AMP_AMP, anon_sym_PIPE_PIPE])])]"

lemma small_run_535: "small_run 1458 73840 ts_small_parse_table_535 1461 74011"
  by (simp add: small_simps ts_small_parse_table_535_def)

definition ts_small_parse_table_536 :: "small_group list" where
  "ts_small_parse_table_536 = [
     (74011, 10, [(ACTIONS 3, 1, [anon_sym_SLASH_SLASH]), (ACTIONS 5, 1,
       [anon_sym_SLASH_STAR]), (ACTIONS 7, 1, [anon_sym_SLASH_SLASH_SLASH]), (ACTIONS 9, 1,
       [sym__block_comment]), (ACTIONS 11, 1, [sym__documentation_block_comment]), (STATE 355, 1,
       [sym_additive_operator]), (STATE 1466, 1, [aux_sym_additive_expression_repeat1]), (STATE
       1461, 2, [sym_comment, sym_documentation_comment]), (ACTIONS 2596, 8, [anon_sym_QMARK,
       anon_sym_LT, anon_sym_GT, anon_sym_PIPE, anon_sym_AMP, anon_sym_GT_GT, anon_sym_as,
       anon_sym_async]), (ACTIONS 2594, 19, [anon_sym_LBRACE, anon_sym_COMMA,
       anon_sym_QMARK_QMARK, sym_equality_operator, anon_sym_LT_EQ, anon_sym_GT_EQ,
       anon_sym_CARET, anon_sym_LT_LT, anon_sym_GT_GT_GT, sym__additive_operator, anon_sym_is,
       anon_sym_DOT_DOT, anon_sym_QMARK_DOT_DOT, anon_sym_SEMI, anon_sym_EQ_GT,
       anon_sym_async_STAR, anon_sym_sync_STAR, anon_sym_AMP_AMP, anon_sym_PIPE_PIPE])]),
     (74068, 11, [(ACTIONS 3, 1, [anon_sym_SLASH_SLASH]), (ACTIONS 5, 1,
       [anon_sym_SLASH_STAR]), (ACTIONS 7, 1, [anon_sym_SLASH_SLASH_SLASH]), (ACTIONS 9, 1,
       [sym__block_comment]), (ACTIONS 11, 1, [sym__documentation_block_comment]), (ACTIONS 3503,
       1, [anon_sym_Function]), (STATE 1422, 1, [sym__function_builtin_identifier]), (STATE 1615,
       1, [sym__function_type_tail]), (STATE 1462, 3, [aux_sym__function_type_tails, sym_comment,
       sym_documentation_comment]), (ACTIONS 2444, 6, [anon_sym_QMARK, anon_sym_LT, anon_sym_GT,
       anon_sym_PIPE, anon_sym_AMP, anon_sym_GT_GT]), (ACTIONS 2442, 19, [anon_sym_RBRACE,
       anon_sym_COMMA, anon_sym_RBRACK, anon_sym_COLON, anon_sym_RPAREN, anon_sym_QMARK_QMARK,
       sym_equality_operator, anon_sym_LT_EQ, anon_sym_GT_EQ, anon_sym_CARET, anon_sym_LT_LT,
       anon_sym_GT_GT_GT, sym__additive_operator, anon_sym_is, anon_sym_as, anon_sym_EQ_GT,
       anon_sym_when, anon_sym_AMP_AMP, anon_sym_PIPE_PIPE])]),
     (74127, 14, [(ACTIONS 3, 1, [anon_sym_SLASH_SLASH]), (ACTIONS 5, 1,
       [anon_sym_SLASH_STAR]), (ACTIONS 7, 1, [anon_sym_SLASH_SLASH_SLASH]), (ACTIONS 9, 1,
       [sym__block_comment]), (ACTIONS 11, 1, [sym__documentation_block_comment]), (ACTIONS 3506,
       1, [anon_sym_LPAREN]), (ACTIONS 3508, 1, [anon_sym_QMARK]), (ACTIONS 3511, 1,
       [anon_sym_LT]), (STATE 1557, 1, [sym_type_parameters]), (STATE 1587, 1,
       [sym_nullable_type]), (STATE 1667, 1, [sym_parameter_type_list]), (STATE 1463, 2,
       [sym_comment, sym_documentation_comment]), (ACTIONS 2395, 11, [anon_sym_when,
       anon_sym_catch, anon_sym_with, anon_sym_Function, anon_sym_get, anon_sym_implements,
       anon_sym_operator, anon_sym_set, anon_sym_this, anon_sym_super, sym_identifier]), (ACTIONS
       2380, 12, [anon_sym_LBRACE, anon_sym_RBRACE, anon_sym_COMMA, anon_sym_RBRACK,
       anon_sym_COLON, anon_sym_RPAREN, anon_sym_GT, anon_sym_DOT, anon_sym_SEMI, anon_sym_EQ_GT,
       anon_sym_AMP_AMP, anon_sym_PIPE_PIPE])])]"

lemma small_run_536: "small_run 1461 74011 ts_small_parse_table_536 1464 74192"
  by (simp add: small_simps ts_small_parse_table_536_def)

definition ts_small_parse_table_537 :: "small_group list" where
  "ts_small_parse_table_537 = [
     (74192, 10, [(ACTIONS 3, 1, [anon_sym_SLASH_SLASH]), (ACTIONS 5, 1,
       [anon_sym_SLASH_STAR]), (ACTIONS 7, 1, [anon_sym_SLASH_SLASH_SLASH]), (ACTIONS 9, 1,
       [sym__block_comment]), (ACTIONS 11, 1, [sym__documentation_block_comment]), (ACTIONS 2564,
       1, [anon_sym_PIPE_PIPE]), (STATE 352, 1, [sym_logical_or_operator]), (STATE 1464, 3,
       [sym_comment, sym_documentation_comment, aux_sym_logical_or_expression_repeat1]), (ACTIONS
       1416, 8, [anon_sym_QMARK, anon_sym_LT, anon_sym_GT, anon_sym_PIPE, anon_sym_AMP,
       anon_sym_GT_GT, anon_sym_as, anon_sym_async]), (ACTIONS 1414, 18, [anon_sym_LBRACE,
       anon_sym_COMMA, anon_sym_QMARK_QMARK, sym_equality_operator, anon_sym_LT_EQ,
       anon_sym_GT_EQ, anon_sym_CARET, anon_sym_LT_LT, anon_sym_GT_GT_GT, sym__additive_operator,
       anon_sym_is, anon_sym_DOT_DOT, anon_sym_QMARK_DOT_DOT, anon_sym_SEMI, anon_sym_EQ_GT,
       anon_sym_async_STAR, anon_sym_sync_STAR, anon_sym_AMP_AMP])]),
     (74249, 10, [(ACTIONS 3, 1, [anon_sym_SLASH_SLASH]), (ACTIONS 5, 1,
       [anon_sym_SLASH_STAR]), (ACTIONS 7, 1, [anon_sym_SLASH_SLASH_SLASH]), (ACTIONS 9, 1,
       [sym__block_comment]), (ACTIONS 11, 1, [sym__documentation_block_comment]), (ACTIONS 2574,
       1, [anon_sym_AMP_AMP]), (STATE 354, 1, [sym_logical_and_operator]), (STATE 1465, 3,
       [sym_comment, sym_documentation_comment, aux_sym_logical_and_expression_repeat1]),
       (ACTIONS 1434, 8, [anon_sym_QMARK, anon_sym_LT, anon_sym_GT, anon_sym_PIPE, anon_sym_AMP,
       anon_sym_GT_GT, anon_sym_as, anon_sym_async]), (ACTIONS 1432, 18, [anon_sym_LBRACE,
       anon_sym_COMMA, anon_sym_QMARK_QMARK, sym_equality_operator, anon_sym_LT_EQ,
       anon_sym_GT_EQ, anon_sym_CARET, anon_sym_LT_LT, anon_sym_GT_GT_GT, sym__additive_operator,
       anon_sym_is, anon_sym_DOT_DOT, anon_sym_QMARK_DOT_DOT, anon_sym_SEMI, anon_sym_EQ_GT,
       anon_sym_async_STAR, anon_sym_sync_STAR, anon_sym_PIPE_PIPE])]),
     (74306, 10, [(ACTIONS 3, 1, [anon_sym_SLASH_SLASH]), (ACTIONS 5, 1,
       [anon_sym_SLASH_STAR]), (ACTIONS 7, 1, [anon_sym_SLASH_SLASH_SLASH]), (ACTIONS 9, 1,
       [sym__block_comment]), (ACTIONS 11, 1, [sym__documentation_block_comment]), (ACTIONS 2577,
       1, [sym__additive_operator]), (STATE 355, 1, [sym_additive_operator]), (STATE 1466, 3,
       [sym_comment, sym_documentation_comment, aux_sym_additive_expression_repeat1]), (ACTIONS
       1355, 8, [anon_sym_QMARK, anon_sym_LT, anon_sym_GT, anon_sym_PIPE, anon_sym_AMP,
       anon_sym_GT_GT, anon_sym_as, anon_sym_async]), (ACTIONS 1353, 18, [anon_sym_LBRACE,
       anon_sym_COMMA, anon_sym_QMARK_QMARK, sym_equality_operator, anon_sym_LT_EQ,
       anon_sym_GT_EQ, anon_sym_CARET, anon_sym_LT_LT, anon_sym_GT_GT_GT, anon_sym_is,
       anon_sym_DOT_DOT, anon_sym_QMARK_DOT_DOT, anon_sym_SEMI, anon_sym_EQ_GT,
       anon_sym_async_STAR, anon_sym_sync_STAR, anon_sym_AMP_AMP, anon_sym_PIPE_PIPE])])]"

lemma small_run_537: "small_run 1464 74192 ts_small_parse_table_537 1467 74363"
  by (simp add: small_simps ts_small_parse_table_537_def)

definition ts_small_parse_table_538 :: "small_group list" where
  "ts_small_parse_table_538 = [
     (74363, 12, [(ACTIONS 3, 1, [anon_sym_SLASH_SLASH]), (ACTIONS 5, 1,
       [anon_sym_SLASH_STAR]), (ACTIONS 7, 1, [anon_sym_SLASH_SLASH_SLASH]), (ACTIONS 9, 1,
       [sym__block_comment]), (ACTIONS 11, 1, [sym__documentation_block_comment]), (ACTIONS 3466,
       1, [anon_sym_LPAREN]), (ACTIONS 3513, 1, [anon_sym_QMARK]), (STATE 1599, 1,
       [sym_parameter_type_list]), (STATE 1635, 1, [sym_nullable_type]), (STATE 1467, 2,
       [sym_comment, sym_documentation_comment]), (ACTIONS 2487, 5, [anon_sym_LT, anon_sym_GT,
       anon_sym_PIPE, anon_sym_AMP, anon_sym_GT_GT]), (ACTIONS 2479, 20, [anon_sym_RBRACE,
       anon_sym_COMMA, anon_sym_RBRACK, anon_sym_COLON, anon_sym_RPAREN, anon_sym_QMARK_QMARK,
       sym_equality_operator, anon_sym_LT_EQ, anon_sym_GT_EQ, anon_sym_CARET, anon_sym_LT_LT,
       anon_sym_GT_GT_GT, sym__additive_operator, anon_sym_is, anon_sym_as, anon_sym_EQ_GT,
       anon_sym_when, anon_sym_Function, anon_sym_AMP_AMP, anon_sym_PIPE_PIPE])]),
     (74424, 12, [(ACTIONS 3, 1, [anon_sym_SLASH_SLASH]), (ACTIONS 5, 1,
       [anon_sym_SLASH_STAR]), (ACTIONS 7, 1, [anon_sym_SLASH_SLASH_SLASH]), (ACTIONS 9, 1,
       [sym__block_comment]), (ACTIONS 11, 1, [sym__documentation_block_comment]), (ACTIONS 3466,
       1, [anon_sym_LPAREN]), (ACTIONS 3516, 1, [anon_sym_QMARK]), (STATE 1589, 1,
       [sym_parameter_type_list]), (STATE 1647, 1, [sym_nullable_type]), (STATE 1468, 2,
       [sym_comment, sym_documentation_comment]), (ACTIONS 2515, 5, [anon_sym_LT, anon_sym_GT,
       anon_sym_PIPE, anon_sym_AMP, anon_sym_GT_GT]), (ACTIONS 2507, 20, [anon_sym_RBRACE,
       anon_sym_COMMA, anon_sym_RBRACK, anon_sym_COLON, anon_sym_RPAREN, anon_sym_QMARK_QMARK,
       sym_equality_operator, anon_sym_LT_EQ, anon_sym_GT_EQ, anon_sym_CARET, anon_sym_LT_LT,
       anon_sym_GT_GT_GT, sym__additive_operator, anon_sym_is, anon_sym_as, anon_sym_EQ_GT,
       anon_sym_when, anon_sym_Function, anon_sym_AMP_AMP, anon_sym_PIPE_PIPE])]),
     (74485, 8, [(ACTIONS 3, 1, [anon_sym_SLASH_SLASH]), (ACTIONS 5, 1, [anon_sym_SLASH_STAR]),
       (ACTIONS 7, 1, [anon_sym_SLASH_SLASH_SLASH]), (ACTIONS 9, 1, [sym__block_comment]),
       (ACTIONS 11, 1, [sym__documentation_block_comment]), (STATE 1469, 2, [sym_comment,
       sym_documentation_comment]), (ACTIONS 2978, 6, [anon_sym_QMARK, anon_sym_LT, anon_sym_GT,
       anon_sym_PIPE, anon_sym_AMP, anon_sym_GT_GT]), (ACTIONS 2976, 23, [anon_sym_RBRACE,
       anon_sym_COMMA, anon_sym_RBRACK, anon_sym_COLON, anon_sym_RPAREN, anon_sym_QMARK_QMARK,
       sym_equality_operator, anon_sym_LT_EQ, anon_sym_GT_EQ, anon_sym_CARET, anon_sym_LT_LT,
       anon_sym_GT_GT_GT, sym__additive_operator, anon_sym_is, anon_sym_as, anon_sym_DOT_DOT,
       anon_sym_QMARK_DOT_DOT, anon_sym_SEMI, anon_sym_EQ_GT, anon_sym_case, anon_sym_else,
       anon_sym_AMP_AMP, anon_sym_PIPE_PIPE])])]"

lemma small_run_538: "small_run 1467 74363 ts_small_parse_table_538 1470 74538"
  by (simp add: small_simps ts_small_parse_table_538_def)

definition ts_small_parse_table_539 :: "small_group list" where
  "ts_small_parse_table_539 = [
     (74538, 16, [(ACTIONS 3, 1, [anon_sym_SLASH_SLASH]), (ACTIONS 5, 1,
       [anon_sym_SLASH_STAR]), (ACTIONS 7, 1, [anon_sym_SLASH_SLASH_SLASH]), (ACTIONS 9, 1,
       [sym__block_comment]), (ACTIONS 11, 1, [sym__documentation_block_comment]), (ACTIONS 3519,
       1, [anon_sym_DQUOTE]), (ACTIONS 3522, 1, [anon_sym_SQUOTE]), (ACTIONS 3525, 1,
       [anon_sym_DQUOTE_DQUOTE_DQUOTE]), (ACTIONS 3528, 1, [anon_sym_SQUOTE_SQUOTE_SQUOTE]),
       (ACTIONS 3531, 1, [anon_sym_r_DQUOTE]), (ACTIONS 3534, 1, [anon_sym_r_SQUOTE]), (ACTIONS
       3537, 1, [anon_sym_r_DQUOTE_DQUOTE_DQUOTE]), (ACTIONS 3540, 1,
       [anon_sym_r_SQUOTE_SQUOTE_SQUOTE]), (STATE 1470, 3, [sym_comment,
       sym_documentation_comment, aux_sym_string_literal_repeat1]), (STATE 1854, 8,
       [sym__string_literal_double_quotes, sym__string_literal_single_quotes,
       sym__string_literal_double_quotes_multiple, sym__string_literal_single_quotes_multiple,
       sym__raw_string_literal_double_quotes, sym__raw_string_literal_single_quotes,
       sym__raw_string_literal_double_quotes_multiple,
       sym__raw_string_literal_single_quotes_multiple]), (ACTIONS 1181, 12, [anon_sym_RBRACE,
       anon_sym_COMMA, anon_sym_RBRACK, anon_sym_COLON, anon_sym_RPAREN, anon_sym_QMARK,
       anon_sym_BANG, anon_sym_as, anon_sym_EQ_GT, anon_sym_when, anon_sym_AMP_AMP,
       anon_sym_PIPE_PIPE])]),
     (74607, 12, [(ACTIONS 3, 1, [anon_sym_SLASH_SLASH]), (ACTIONS 5, 1,
       [anon_sym_SLASH_STAR]), (ACTIONS 7, 1, [anon_sym_SLASH_SLASH_SLASH]), (ACTIONS 9, 1,
       [sym__block_comment]), (ACTIONS 11, 1, [sym__documentation_block_comment]), (ACTIONS 3466,
       1, [anon_sym_LPAREN]), (ACTIONS 3543, 1, [anon_sym_QMARK]), (STATE 1589, 1,
       [sym_parameter_type_list]), (STATE 1647, 1, [sym_nullable_type]), (STATE 1471, 2,
       [sym_comment, sym_documentation_comment]), (ACTIONS 2528, 5, [anon_sym_LT, anon_sym_GT,
       anon_sym_PIPE, anon_sym_AMP, anon_sym_GT_GT]), (ACTIONS 2517, 20, [anon_sym_RBRACE,
       anon_sym_COMMA, anon_sym_RBRACK, anon_sym_COLON, anon_sym_RPAREN, anon_sym_QMARK_QMARK,
       sym_equality_operator, anon_sym_LT_EQ, anon_sym_GT_EQ, anon_sym_CARET, anon_sym_LT_LT,
       anon_sym_GT_GT_GT, sym__additive_operator, anon_sym_is, anon_sym_as, anon_sym_EQ_GT,
       anon_sym_when, anon_sym_Function, anon_sym_AMP_AMP, anon_sym_PIPE_PIPE])])]"

lemma small_run_539: "small_run 1470 74538 ts_small_parse_table_539 1472 74668"
  by (simp add: small_simps ts_small_parse_table_539_def)

definition ts_small_parse_table_540 :: "small_group list" where
  "ts_small_parse_table_540 = [
     (74668, 12, [(ACTIONS 3, 1, [anon_sym_SLASH_SLASH]), (ACTIONS 5, 1,
       [anon_sym_SLASH_STAR]), (ACTIONS 7, 1, [anon_sym_SLASH_SLASH_SLASH]), (ACTIONS 9, 1,
       [sym__block_comment]), (ACTIONS 11, 1, [sym__documentation_block_comment]), (ACTIONS 3466,
       1, [anon_sym_LPAREN]), (ACTIONS 3516, 1, [anon_sym_QMARK]), (STATE 1467, 1,
       [sym_nullable_type]), (STATE 1589, 1, [sym_parameter_type_list]), (STATE 1472, 2,
       [sym_comment, sym_documentation_comment]), (ACTIONS 2515, 5, [anon_sym_LT, anon_sym_GT,
       anon_sym_PIPE, anon_sym_AMP, anon_sym_GT_GT]), (ACTIONS 2507, 20, [anon_sym_RBRACE,
       anon_sym_COMMA, anon_sym_RBRACK, anon_sym_COLON, anon_sym_RPAREN, anon_sym_QMARK_QMARK,
       sym_equality_operator, anon_sym_LT_EQ, anon_sym_GT_EQ, anon_sym_CARET, anon_sym_LT_LT,
       anon_sym_GT_GT_GT, sym__additive_operator, anon_sym_is, anon_sym_as, anon_sym_EQ_GT,
       anon_sym_when, anon_sym_Function, anon_sym_AMP_AMP, anon_sym_PIPE_PIPE])]),
     (74729, 10, [(ACTIONS 3, 1, [anon_sym_SLASH_SLASH]), (ACTIONS 5, 1,
       [anon_sym_SLASH_STAR]), (ACTIONS 7, 1, [anon_sym_SLASH_SLASH_SLASH]), (ACTIONS 9, 1,
       [sym__block_comment]), (ACTIONS 11, 1, [sym__documentation_block_comment]), (ACTIONS 3547,
       1, [anon_sym_AT]), (STATE 1571, 1, [sym_annotation]), (ACTIONS 3278, 2, [anon_sym_LPAREN,
       sym_part_of_builtin]), (STATE 1473, 3, [sym_comment, sym_documentation_comment,
       aux_sym__metadata_repeat1]), (ACTIONS 3276, 24, [anon_sym_part, anon_sym_enum,
       anon_sym_final, anon_sym_inline, anon_sym_class, anon_sym_extension, sym_void_type,
       anon_sym_var, anon_sym_library, anon_sym_export, anon_sym_Function, anon_sym_get,
       anon_sym_import, anon_sym_interface, anon_sym_base, anon_sym_abstract, anon_sym_sealed,
       anon_sym_mixin, anon_sym_set, anon_sym_typedef, sym_const_builtin, anon_sym_late,
       anon_sym_external, sym_identifier])]),
     (74786, 14, [(ACTIONS 3, 1, [anon_sym_SLASH_SLASH]), (ACTIONS 5, 1,
       [anon_sym_SLASH_STAR]), (ACTIONS 7, 1, [anon_sym_SLASH_SLASH_SLASH]), (ACTIONS 9, 1,
       [sym__block_comment]), (ACTIONS 11, 1, [sym__documentation_block_comment]), (ACTIONS 3554,
       1, [anon_sym_AT]), (ACTIONS 3557, 1, [sym_part_of_builtin]), (STATE 1454, 1,
       [aux_sym__metadata_repeat1]), (STATE 1571, 1, [sym_annotation]), (STATE 1725, 1,
       [sym_part_of_directive]), (STATE 3509, 1, [sym__metadata]), (ACTIONS 3550, 2,
       [ts_builtin_sym_end, anon_sym_LPAREN]), (STATE 1474, 3, [sym_comment,
       sym_documentation_comment, aux_sym_program_repeat3]), (ACTIONS 3552, 20, [anon_sym_enum,
       anon_sym_final, anon_sym_inline, anon_sym_class, anon_sym_extension, sym_void_type,
       anon_sym_var, anon_sym_Function, anon_sym_get, anon_sym_interface, anon_sym_base,
       anon_sym_abstract, anon_sym_sealed, anon_sym_mixin, anon_sym_set, anon_sym_typedef,
       sym_const_builtin, anon_sym_late, anon_sym_external, sym_identifier])])]"

lemma small_run_540: "small_run 1472 74668 ts_small_parse_table_540 1475 74851"
  by (simp add: small_simps ts_small_parse_table_540_def)

definition ts_small_parse_table_541 :: "small_group list" where
  "ts_small_parse_table_541 = [
     (74851, 17, [(ACTIONS 3, 1, [anon_sym_SLASH_SLASH]), (ACTIONS 5, 1,
       [anon_sym_SLASH_STAR]), (ACTIONS 7, 1, [anon_sym_SLASH_SLASH_SLASH]), (ACTIONS 9, 1,
       [sym__block_comment]), (ACTIONS 11, 1, [sym__documentation_block_comment]), (ACTIONS 860,
       1, [anon_sym_DQUOTE]), (ACTIONS 862, 1, [anon_sym_SQUOTE]), (ACTIONS 864, 1,
       [anon_sym_DQUOTE_DQUOTE_DQUOTE]), (ACTIONS 866, 1, [anon_sym_SQUOTE_SQUOTE_SQUOTE]),
       (ACTIONS 868, 1, [anon_sym_r_DQUOTE]), (ACTIONS 870, 1, [anon_sym_r_SQUOTE]), (ACTIONS
       872, 1, [anon_sym_r_DQUOTE_DQUOTE_DQUOTE]), (ACTIONS 874, 1,
       [anon_sym_r_SQUOTE_SQUOTE_SQUOTE]), (STATE 1470, 1, [aux_sym_string_literal_repeat1]),
       (STATE 1475, 2, [sym_comment, sym_documentation_comment]), (STATE 1854, 8,
       [sym__string_literal_double_quotes, sym__string_literal_single_quotes,
       sym__string_literal_double_quotes_multiple, sym__string_literal_single_quotes_multiple,
       sym__raw_string_literal_double_quotes, sym__raw_string_literal_single_quotes,
       sym__raw_string_literal_double_quotes_multiple,
       sym__raw_string_literal_single_quotes_multiple]), (ACTIONS 1185, 12, [anon_sym_RBRACE,
       anon_sym_COMMA, anon_sym_RBRACK, anon_sym_COLON, anon_sym_RPAREN, anon_sym_QMARK,
       anon_sym_BANG, anon_sym_as, anon_sym_EQ_GT, anon_sym_when, anon_sym_AMP_AMP,
       anon_sym_PIPE_PIPE])]),
     (74922, 11, [(ACTIONS 3, 1, [anon_sym_SLASH_SLASH]), (ACTIONS 5, 1,
       [anon_sym_SLASH_STAR]), (ACTIONS 7, 1, [anon_sym_SLASH_SLASH_SLASH]), (ACTIONS 9, 1,
       [sym__block_comment]), (ACTIONS 11, 1, [sym__documentation_block_comment]), (ACTIONS 2548,
       1, [anon_sym_Function]), (ACTIONS 3560, 1, [anon_sym_QMARK]), (STATE 1518, 1,
       [sym_nullable_type]), (STATE 1476, 2, [sym_comment, sym_documentation_comment]), (ACTIONS
       2546, 7, [anon_sym_LT, anon_sym_GT, anon_sym_PIPE, anon_sym_AMP, anon_sym_GT_GT,
       anon_sym_as, anon_sym_async]), (ACTIONS 2541, 19, [anon_sym_LBRACE, anon_sym_COMMA,
       anon_sym_QMARK_QMARK, sym_equality_operator, anon_sym_LT_EQ, anon_sym_GT_EQ,
       anon_sym_CARET, anon_sym_LT_LT, anon_sym_GT_GT_GT, sym__additive_operator, anon_sym_is,
       anon_sym_DOT_DOT, anon_sym_QMARK_DOT_DOT, anon_sym_SEMI, anon_sym_EQ_GT,
       anon_sym_async_STAR, anon_sym_sync_STAR, anon_sym_AMP_AMP, anon_sym_PIPE_PIPE])]),
     (74981, 8, [(ACTIONS 3, 1, [anon_sym_SLASH_SLASH]), (ACTIONS 5, 1, [anon_sym_SLASH_STAR]),
       (ACTIONS 7, 1, [anon_sym_SLASH_SLASH_SLASH]), (ACTIONS 9, 1, [sym__block_comment]),
       (ACTIONS 11, 1, [sym__documentation_block_comment]), (STATE 1477, 2, [sym_comment,
       sym_documentation_comment]), (ACTIONS 2473, 6, [anon_sym_QMARK, anon_sym_LT, anon_sym_GT,
       anon_sym_PIPE, anon_sym_AMP, anon_sym_GT_GT]), (ACTIONS 2471, 23, [anon_sym_RBRACE,
       anon_sym_COMMA, anon_sym_RBRACK, anon_sym_COLON, anon_sym_RPAREN, anon_sym_QMARK_QMARK,
       sym_equality_operator, anon_sym_LT_EQ, anon_sym_GT_EQ, anon_sym_CARET, anon_sym_LT_LT,
       anon_sym_GT_GT_GT, sym__additive_operator, anon_sym_is, anon_sym_as, anon_sym_DOT_DOT,
       anon_sym_QMARK_DOT_DOT, anon_sym_SEMI, anon_sym_EQ_GT, anon_sym_case, anon_sym_else,
       anon_sym_AMP_AMP, anon_sym_PIPE_PIPE])])]"

lemma small_run_541: "small_run 1475 74851 ts_small_parse_table_541 1478 75034"
  by (simp add: small_simps ts_small_parse_table_541_def)

definition ts_small_parse_table_542 :: "small_group list" where
  "ts_small_parse_table_542 = [
     (75034, 16, [(ACTIONS 3, 1, [anon_sym_SLASH_SLASH]), (ACTIONS 5, 1,
       [anon_sym_SLASH_STAR]), (ACTIONS 7, 1, [anon_sym_SLASH_SLASH_SLASH]), (ACTIONS 9, 1,
       [sym__block_comment]), (ACTIONS 11, 1, [sym__documentation_block_comment]), (ACTIONS 1297,
       1, [anon_sym_LT]), (ACTIONS 2996, 1, [anon_sym_LBRACK]), (ACTIONS 2999, 1,
       [anon_sym_QMARK]), (ACTIONS 3002, 1, [anon_sym_DOT]), (ACTIONS 3005, 1,
       [anon_sym_QMARK_DOT]), (STATE 1141, 1, [sym__cascade_subsection]), (STATE 1145, 1,
       [sym_index_selector]), (STATE 1593, 1, [sym__assignable_selector]), (STATE 1138, 2,
       [sym_unconditional_assignable_selector, sym_conditional_assignable_selector]), (STATE
       1478, 3, [sym_comment, sym_documentation_comment, aux_sym_cascade_section_repeat2]),
       (ACTIONS 1292, 18, [anon_sym_LPAREN, anon_sym_EQ, anon_sym_PLUS_EQ, anon_sym_DASH_EQ,
       anon_sym_STAR_EQ, anon_sym_SLASH_EQ, anon_sym_PERCENT_EQ, anon_sym_TILDE_SLASH_EQ,
       anon_sym_LT_LT_EQ, anon_sym_GT_GT_EQ, anon_sym_GT_GT_GT_EQ, anon_sym_AMP_EQ,
       anon_sym_CARET_EQ, anon_sym_PIPE_EQ, anon_sym_QMARK_QMARK_EQ, anon_sym_BANG,
       anon_sym_DOT_DOT, anon_sym_QMARK_DOT_DOT])]),
     (75103, 8, [(ACTIONS 3, 1, [anon_sym_SLASH_SLASH]), (ACTIONS 5, 1, [anon_sym_SLASH_STAR]),
       (ACTIONS 7, 1, [anon_sym_SLASH_SLASH_SLASH]), (ACTIONS 9, 1, [sym__block_comment]),
       (ACTIONS 11, 1, [sym__documentation_block_comment]), (STATE 1479, 2, [sym_comment,
       sym_documentation_comment]), (ACTIONS 3267, 5, [anon_sym_LPAREN, anon_sym_LT,
       anon_sym_DOT, anon_sym_AT, sym_part_of_builtin]), (ACTIONS 3265, 24, [anon_sym_part,
       anon_sym_enum, anon_sym_final, anon_sym_inline, anon_sym_class, anon_sym_extension,
       sym_void_type, anon_sym_var, anon_sym_library, anon_sym_export, anon_sym_Function,
       anon_sym_get, anon_sym_import, anon_sym_interface, anon_sym_base, anon_sym_abstract,
       anon_sym_sealed, anon_sym_mixin, anon_sym_set, anon_sym_typedef, sym_const_builtin,
       anon_sym_late, anon_sym_external, sym_identifier])]),
     (75156, 8, [(ACTIONS 3, 1, [anon_sym_SLASH_SLASH]), (ACTIONS 5, 1, [anon_sym_SLASH_STAR]),
       (ACTIONS 7, 1, [anon_sym_SLASH_SLASH_SLASH]), (ACTIONS 9, 1, [sym__block_comment]),
       (ACTIONS 11, 1, [sym__documentation_block_comment]), (STATE 1480, 2, [sym_comment,
       sym_documentation_comment]), (ACTIONS 3080, 7, [anon_sym_QMARK, anon_sym_LT, anon_sym_GT,
       anon_sym_PIPE, anon_sym_AMP, anon_sym_GT_GT, anon_sym_SLASH]), (ACTIONS 3078, 22,
       [anon_sym_RBRACE, anon_sym_COMMA, anon_sym_RBRACK, anon_sym_COLON, anon_sym_RPAREN,
       anon_sym_QMARK_QMARK, sym_equality_operator, anon_sym_LT_EQ, anon_sym_GT_EQ,
       anon_sym_CARET, anon_sym_LT_LT, anon_sym_GT_GT_GT, sym__additive_operator, anon_sym_STAR,
       anon_sym_PERCENT, anon_sym_TILDE_SLASH, anon_sym_is, anon_sym_as, anon_sym_EQ_GT,
       anon_sym_when, anon_sym_AMP_AMP, anon_sym_PIPE_PIPE])])]"

lemma small_run_542: "small_run 1478 75034 ts_small_parse_table_542 1481 75209"
  by (simp add: small_simps ts_small_parse_table_542_def)

definition ts_small_parse_table_543 :: "small_group list" where
  "ts_small_parse_table_543 = [
     (75209, 8, [(ACTIONS 3, 1, [anon_sym_SLASH_SLASH]), (ACTIONS 5, 1, [anon_sym_SLASH_STAR]),
       (ACTIONS 7, 1, [anon_sym_SLASH_SLASH_SLASH]), (ACTIONS 9, 1, [sym__block_comment]),
       (ACTIONS 11, 1, [sym__documentation_block_comment]), (STATE 1481, 2, [sym_comment,
       sym_documentation_comment]), (ACTIONS 2031, 7, [anon_sym_QMARK, anon_sym_LT, anon_sym_GT,
       anon_sym_PIPE, anon_sym_AMP, anon_sym_GT_GT, anon_sym_SLASH]), (ACTIONS 2017, 22,
       [anon_sym_RBRACE, anon_sym_COMMA, anon_sym_RBRACK, anon_sym_COLON, anon_sym_RPAREN,
       anon_sym_QMARK_QMARK, sym_equality_operator, anon_sym_LT_EQ, anon_sym_GT_EQ,
       anon_sym_CARET, anon_sym_LT_LT, anon_sym_GT_GT_GT, sym__additive_operator, anon_sym_STAR,
       anon_sym_PERCENT, anon_sym_TILDE_SLASH, anon_sym_is, anon_sym_as, anon_sym_EQ_GT,
       anon_sym_when, anon_sym_AMP_AMP, anon_sym_PIPE_PIPE])]),
     (75262, 8, [(ACTIONS 3, 1, [anon_sym_SLASH_SLASH]), (ACTIONS 5, 1, [anon_sym_SLASH_STAR]),
       (ACTIONS 7, 1, [anon_sym_SLASH_SLASH_SLASH]), (ACTIONS 9, 1, [sym__block_comment]),
       (ACTIONS 11, 1, [sym__documentation_block_comment]), (STATE 1482, 2, [sym_comment,
       sym_documentation_comment]), (ACTIONS 2499, 7, [anon_sym_QMARK, anon_sym_LT, anon_sym_GT,
       anon_sym_PIPE, anon_sym_AMP, anon_sym_GT_GT, anon_sym_SLASH]), (ACTIONS 2497, 22,
       [anon_sym_RBRACE, anon_sym_COMMA, anon_sym_RBRACK, anon_sym_COLON, anon_sym_RPAREN,
       anon_sym_QMARK_QMARK, sym_equality_operator, anon_sym_LT_EQ, anon_sym_GT_EQ,
       anon_sym_CARET, anon_sym_LT_LT, anon_sym_GT_GT_GT, sym__additive_operator, anon_sym_STAR,
       anon_sym_PERCENT, anon_sym_TILDE_SLASH, anon_sym_is, anon_sym_as, anon_sym_EQ_GT,
       anon_sym_when, anon_sym_AMP_AMP, anon_sym_PIPE_PIPE])]),
     (75315, 8, [(ACTIONS 3, 1, [anon_sym_SLASH_SLASH]), (ACTIONS 5, 1, [anon_sym_SLASH_STAR]),
       (ACTIONS 7, 1, [anon_sym_SLASH_SLASH_SLASH]), (ACTIONS 9, 1, [sym__block_comment]),
       (ACTIONS 11, 1, [sym__documentation_block_comment]), (STATE 1483, 2, [sym_comment,
       sym_documentation_comment]), (ACTIONS 3076, 7, [anon_sym_QMARK, anon_sym_LT, anon_sym_GT,
       anon_sym_PIPE, anon_sym_AMP, anon_sym_GT_GT, anon_sym_SLASH]), (ACTIONS 3074, 22,
       [anon_sym_RBRACE, anon_sym_COMMA, anon_sym_RBRACK, anon_sym_COLON, anon_sym_RPAREN,
       anon_sym_QMARK_QMARK, sym_equality_operator, anon_sym_LT_EQ, anon_sym_GT_EQ,
       anon_sym_CARET, anon_sym_LT_LT, anon_sym_GT_GT_GT, sym__additive_operator, anon_sym_STAR,
       anon_sym_PERCENT, anon_sym_TILDE_SLASH, anon_sym_is, anon_sym_as, anon_sym_EQ_GT,
       anon_sym_when, anon_sym_AMP_AMP, anon_sym_PIPE_PIPE])])]"

lemma small_run_543: "small_run 1481 75209 ts_small_parse_table_543 1484 75368"
  by (simp add: small_simps ts_small_parse_table_543_def)

definition ts_small_parse_table_544 :: "small_group list" where
  "ts_small_parse_table_544 = [
     (75368, 8, [(ACTIONS 3, 1, [anon_sym_SLASH_SLASH]), (ACTIONS 5, 1, [anon_sym_SLASH_STAR]),
       (ACTIONS 7, 1, [anon_sym_SLASH_SLASH_SLASH]), (ACTIONS 9, 1, [sym__block_comment]),
       (ACTIONS 11, 1, [sym__documentation_block_comment]), (STATE 1484, 2, [sym_comment,
       sym_documentation_comment]), (ACTIONS 2950, 6, [anon_sym_QMARK, anon_sym_LT, anon_sym_GT,
       anon_sym_PIPE, anon_sym_AMP, anon_sym_GT_GT]), (ACTIONS 2948, 23, [anon_sym_RBRACE,
       anon_sym_COMMA, anon_sym_RBRACK, anon_sym_COLON, anon_sym_RPAREN, anon_sym_QMARK_QMARK,
       sym_equality_operator, anon_sym_LT_EQ, anon_sym_GT_EQ, anon_sym_CARET, anon_sym_LT_LT,
       anon_sym_GT_GT_GT, sym__additive_operator, anon_sym_is, anon_sym_as, anon_sym_DOT_DOT,
       anon_sym_QMARK_DOT_DOT, anon_sym_SEMI, anon_sym_EQ_GT, anon_sym_case, anon_sym_else,
       anon_sym_AMP_AMP, anon_sym_PIPE_PIPE])]),
     (75421, 8, [(ACTIONS 3, 1, [anon_sym_SLASH_SLASH]), (ACTIONS 5, 1, [anon_sym_SLASH_STAR]),
       (ACTIONS 7, 1, [anon_sym_SLASH_SLASH_SLASH]), (ACTIONS 9, 1, [sym__block_comment]),
       (ACTIONS 11, 1, [sym__documentation_block_comment]), (STATE 1485, 2, [sym_comment,
       sym_documentation_comment]), (ACTIONS 2946, 6, [anon_sym_QMARK, anon_sym_LT, anon_sym_GT,
       anon_sym_PIPE, anon_sym_AMP, anon_sym_GT_GT]), (ACTIONS 2944, 23, [anon_sym_RBRACE,
       anon_sym_COMMA, anon_sym_RBRACK, anon_sym_COLON, anon_sym_RPAREN, anon_sym_QMARK_QMARK,
       sym_equality_operator, anon_sym_LT_EQ, anon_sym_GT_EQ, anon_sym_CARET, anon_sym_LT_LT,
       anon_sym_GT_GT_GT, sym__additive_operator, anon_sym_is, anon_sym_as, anon_sym_DOT_DOT,
       anon_sym_QMARK_DOT_DOT, anon_sym_SEMI, anon_sym_EQ_GT, anon_sym_case, anon_sym_else,
       anon_sym_AMP_AMP, anon_sym_PIPE_PIPE])]),
     (75474, 8, [(ACTIONS 3, 1, [anon_sym_SLASH_SLASH]), (ACTIONS 5, 1, [anon_sym_SLASH_STAR]),
       (ACTIONS 7, 1, [anon_sym_SLASH_SLASH_SLASH]), (ACTIONS 9, 1, [sym__block_comment]),
       (ACTIONS 11, 1, [sym__documentation_block_comment]), (STATE 1486, 2, [sym_comment,
       sym_documentation_comment]), (ACTIONS 2739, 8, [anon_sym_QMARK, anon_sym_LT, anon_sym_GT,
       anon_sym_PIPE, anon_sym_AMP, anon_sym_GT_GT, anon_sym_as, anon_sym_async]), (ACTIONS 2737,
       21, [anon_sym_LBRACE, anon_sym_COMMA, anon_sym_LPAREN, anon_sym_QMARK_QMARK,
       sym_equality_operator, anon_sym_LT_EQ, anon_sym_GT_EQ, anon_sym_CARET, anon_sym_LT_LT,
       anon_sym_GT_GT_GT, sym__additive_operator, anon_sym_is, anon_sym_DOT_DOT,
       anon_sym_QMARK_DOT_DOT, anon_sym_SEMI, anon_sym_EQ_GT, anon_sym_async_STAR,
       anon_sym_sync_STAR, anon_sym_Function, anon_sym_AMP_AMP, anon_sym_PIPE_PIPE])])]"

lemma small_run_544: "small_run 1484 75368 ts_small_parse_table_544 1487 75527"
  by (simp add: small_simps ts_small_parse_table_544_def)

definition ts_small_parse_table_545 :: "small_group list" where
  "ts_small_parse_table_545 = [
     (75527, 8, [(ACTIONS 3, 1, [anon_sym_SLASH_SLASH]), (ACTIONS 5, 1, [anon_sym_SLASH_STAR]),
       (ACTIONS 7, 1, [anon_sym_SLASH_SLASH_SLASH]), (ACTIONS 9, 1, [sym__block_comment]),
       (ACTIONS 11, 1, [sym__documentation_block_comment]), (STATE 1487, 2, [sym_comment,
       sym_documentation_comment]), (ACTIONS 3022, 7, [anon_sym_QMARK, anon_sym_LT, anon_sym_GT,
       anon_sym_PIPE, anon_sym_AMP, anon_sym_GT_GT, anon_sym_SLASH]), (ACTIONS 3020, 22,
       [anon_sym_RBRACE, anon_sym_COMMA, anon_sym_RBRACK, anon_sym_COLON, anon_sym_RPAREN,
       anon_sym_QMARK_QMARK, sym_equality_operator, anon_sym_LT_EQ, anon_sym_GT_EQ,
       anon_sym_CARET, anon_sym_LT_LT, anon_sym_GT_GT_GT, sym__additive_operator, anon_sym_STAR,
       anon_sym_PERCENT, anon_sym_TILDE_SLASH, anon_sym_is, anon_sym_as, anon_sym_EQ_GT,
       anon_sym_when, anon_sym_AMP_AMP, anon_sym_PIPE_PIPE])]),
     (75580, 8, [(ACTIONS 3, 1, [anon_sym_SLASH_SLASH]), (ACTIONS 5, 1, [anon_sym_SLASH_STAR]),
       (ACTIONS 7, 1, [anon_sym_SLASH_SLASH_SLASH]), (ACTIONS 9, 1, [sym__block_comment]),
       (ACTIONS 11, 1, [sym__documentation_block_comment]), (STATE 1488, 2, [sym_comment,
       sym_documentation_comment]), (ACTIONS 3018, 7, [anon_sym_QMARK, anon_sym_LT, anon_sym_GT,
       anon_sym_PIPE, anon_sym_AMP, anon_sym_GT_GT, anon_sym_SLASH]), (ACTIONS 3016, 22,
       [anon_sym_RBRACE, anon_sym_COMMA, anon_sym_RBRACK, anon_sym_COLON, anon_sym_RPAREN,
       anon_sym_QMARK_QMARK, sym_equality_operator, anon_sym_LT_EQ, anon_sym_GT_EQ,
       anon_sym_CARET, anon_sym_LT_LT, anon_sym_GT_GT_GT, sym__additive_operator, anon_sym_STAR,
       anon_sym_PERCENT, anon_sym_TILDE_SLASH, anon_sym_is, anon_sym_as, anon_sym_EQ_GT,
       anon_sym_when, anon_sym_AMP_AMP, anon_sym_PIPE_PIPE])]),
     (75633, 8, [(ACTIONS 3, 1, [anon_sym_SLASH_SLASH]), (ACTIONS 5, 1, [anon_sym_SLASH_STAR]),
       (ACTIONS 7, 1, [anon_sym_SLASH_SLASH_SLASH]), (ACTIONS 9, 1, [sym__block_comment]),
       (ACTIONS 11, 1, [sym__documentation_block_comment]), (STATE 1489, 2, [sym_comment,
       sym_documentation_comment]), (ACTIONS 2710, 8, [anon_sym_QMARK, anon_sym_LT, anon_sym_GT,
       anon_sym_PIPE, anon_sym_AMP, anon_sym_GT_GT, anon_sym_as, anon_sym_async]), (ACTIONS 2708,
       21, [anon_sym_LBRACE, anon_sym_COMMA, anon_sym_LPAREN, anon_sym_QMARK_QMARK,
       sym_equality_operator, anon_sym_LT_EQ, anon_sym_GT_EQ, anon_sym_CARET, anon_sym_LT_LT,
       anon_sym_GT_GT_GT, sym__additive_operator, anon_sym_is, anon_sym_DOT_DOT,
       anon_sym_QMARK_DOT_DOT, anon_sym_SEMI, anon_sym_EQ_GT, anon_sym_async_STAR,
       anon_sym_sync_STAR, anon_sym_Function, anon_sym_AMP_AMP, anon_sym_PIPE_PIPE])])]"

lemma small_run_545: "small_run 1487 75527 ts_small_parse_table_545 1490 75686"
  by (simp add: small_simps ts_small_parse_table_545_def)

definition ts_small_parse_table_546 :: "small_group list" where
  "ts_small_parse_table_546 = [
     (75686, 8, [(ACTIONS 3, 1, [anon_sym_SLASH_SLASH]), (ACTIONS 5, 1, [anon_sym_SLASH_STAR]),
       (ACTIONS 7, 1, [anon_sym_SLASH_SLASH_SLASH]), (ACTIONS 9, 1, [sym__block_comment]),
       (ACTIONS 11, 1, [sym__documentation_block_comment]), (STATE 1490, 2, [sym_comment,
       sym_documentation_comment]), (ACTIONS 2640, 8, [anon_sym_QMARK, anon_sym_LT, anon_sym_GT,
       anon_sym_PIPE, anon_sym_AMP, anon_sym_GT_GT, anon_sym_as, anon_sym_async]), (ACTIONS 2638,
       21, [anon_sym_LBRACE, anon_sym_COMMA, anon_sym_LPAREN, anon_sym_QMARK_QMARK,
       sym_equality_operator, anon_sym_LT_EQ, anon_sym_GT_EQ, anon_sym_CARET, anon_sym_LT_LT,
       anon_sym_GT_GT_GT, sym__additive_operator, anon_sym_is, anon_sym_DOT_DOT,
       anon_sym_QMARK_DOT_DOT, anon_sym_SEMI, anon_sym_EQ_GT, anon_sym_async_STAR,
       anon_sym_sync_STAR, anon_sym_Function, anon_sym_AMP_AMP, anon_sym_PIPE_PIPE])]),
     (75739, 10, [(ACTIONS 3, 1, [anon_sym_SLASH_SLASH]), (ACTIONS 5, 1,
       [anon_sym_SLASH_STAR]), (ACTIONS 7, 1, [anon_sym_SLASH_SLASH_SLASH]), (ACTIONS 9, 1,
       [sym__block_comment]), (ACTIONS 11, 1, [sym__documentation_block_comment]), (ACTIONS 3563,
       1, [anon_sym_QMARK]), (STATE 1532, 1, [sym_nullable_type]), (STATE 1491, 2, [sym_comment,
       sym_documentation_comment]), (ACTIONS 2555, 7, [anon_sym_LT, anon_sym_GT, anon_sym_PIPE,
       anon_sym_AMP, anon_sym_GT_GT, anon_sym_as, anon_sym_async]), (ACTIONS 2550, 20,
       [anon_sym_LBRACE, anon_sym_COMMA, anon_sym_QMARK_QMARK, sym_equality_operator,
       anon_sym_LT_EQ, anon_sym_GT_EQ, anon_sym_CARET, anon_sym_LT_LT, anon_sym_GT_GT_GT,
       sym__additive_operator, anon_sym_is, anon_sym_DOT_DOT, anon_sym_QMARK_DOT_DOT,
       anon_sym_SEMI, anon_sym_EQ_GT, anon_sym_async_STAR, anon_sym_sync_STAR, anon_sym_Function,
       anon_sym_AMP_AMP, anon_sym_PIPE_PIPE])]),
     (75796, 10, [(ACTIONS 3, 1, [anon_sym_SLASH_SLASH]), (ACTIONS 5, 1,
       [anon_sym_SLASH_STAR]), (ACTIONS 7, 1, [anon_sym_SLASH_SLASH_SLASH]), (ACTIONS 9, 1,
       [sym__block_comment]), (ACTIONS 11, 1, [sym__documentation_block_comment]), (ACTIONS 3365,
       1, [anon_sym_QMARK]), (STATE 1528, 1, [sym_nullable_type]), (STATE 1492, 2, [sym_comment,
       sym_documentation_comment]), (ACTIONS 2487, 7, [anon_sym_LT, anon_sym_GT, anon_sym_PIPE,
       anon_sym_AMP, anon_sym_GT_GT, anon_sym_as, anon_sym_async]), (ACTIONS 2479, 20,
       [anon_sym_LBRACE, anon_sym_COMMA, anon_sym_QMARK_QMARK, sym_equality_operator,
       anon_sym_LT_EQ, anon_sym_GT_EQ, anon_sym_CARET, anon_sym_LT_LT, anon_sym_GT_GT_GT,
       sym__additive_operator, anon_sym_is, anon_sym_DOT_DOT, anon_sym_QMARK_DOT_DOT,
       anon_sym_SEMI, anon_sym_EQ_GT, anon_sym_async_STAR, anon_sym_sync_STAR, anon_sym_Function,
       anon_sym_AMP_AMP, anon_sym_PIPE_PIPE])])]"

lemma small_run_546: "small_run 1490 75686 ts_small_parse_table_546 1493 75853"
  by (simp add: small_simps ts_small_parse_table_546_def)

definition ts_small_parse_table_547 :: "small_group list" where
  "ts_small_parse_table_547 = [
     (75853, 8, [(ACTIONS 3, 1, [anon_sym_SLASH_SLASH]), (ACTIONS 5, 1, [anon_sym_SLASH_STAR]),
       (ACTIONS 7, 1, [anon_sym_SLASH_SLASH_SLASH]), (ACTIONS 9, 1, [sym__block_comment]),
       (ACTIONS 11, 1, [sym__documentation_block_comment]), (STATE 1493, 2, [sym_comment,
       sym_documentation_comment]), (ACTIONS 2910, 6, [anon_sym_QMARK, anon_sym_LT, anon_sym_GT,
       anon_sym_PIPE, anon_sym_AMP, anon_sym_GT_GT]), (ACTIONS 2908, 23, [anon_sym_RBRACE,
       anon_sym_COMMA, anon_sym_RBRACK, anon_sym_COLON, anon_sym_RPAREN, anon_sym_QMARK_QMARK,
       sym_equality_operator, anon_sym_LT_EQ, anon_sym_GT_EQ, anon_sym_CARET, anon_sym_LT_LT,
       anon_sym_GT_GT_GT, sym__additive_operator, anon_sym_is, anon_sym_as, anon_sym_DOT_DOT,
       anon_sym_QMARK_DOT_DOT, anon_sym_SEMI, anon_sym_EQ_GT, anon_sym_case, anon_sym_else,
       anon_sym_AMP_AMP, anon_sym_PIPE_PIPE])]),
     (75906, 10, [(ACTIONS 3, 1, [anon_sym_SLASH_SLASH]), (ACTIONS 5, 1,
       [anon_sym_SLASH_STAR]), (ACTIONS 7, 1, [anon_sym_SLASH_SLASH_SLASH]), (ACTIONS 9, 1,
       [sym__block_comment]), (ACTIONS 11, 1, [sym__documentation_block_comment]), (ACTIONS 3368,
       1, [anon_sym_QMARK]), (STATE 1541, 1, [sym_nullable_type]), (STATE 1494, 2, [sym_comment,
       sym_documentation_comment]), (ACTIONS 2515, 7, [anon_sym_LT, anon_sym_GT, anon_sym_PIPE,
       anon_sym_AMP, anon_sym_GT_GT, anon_sym_as, anon_sym_async]), (ACTIONS 2507, 20,
       [anon_sym_LBRACE, anon_sym_COMMA, anon_sym_QMARK_QMARK, sym_equality_operator,
       anon_sym_LT_EQ, anon_sym_GT_EQ, anon_sym_CARET, anon_sym_LT_LT, anon_sym_GT_GT_GT,
       sym__additive_operator, anon_sym_is, anon_sym_DOT_DOT, anon_sym_QMARK_DOT_DOT,
       anon_sym_SEMI, anon_sym_EQ_GT, anon_sym_async_STAR, anon_sym_sync_STAR, anon_sym_Function,
       anon_sym_AMP_AMP, anon_sym_PIPE_PIPE])]),
     (75963, 8, [(ACTIONS 3, 1, [anon_sym_SLASH_SLASH]), (ACTIONS 5, 1, [anon_sym_SLASH_STAR]),
       (ACTIONS 7, 1, [anon_sym_SLASH_SLASH_SLASH]), (ACTIONS 9, 1, [sym__block_comment]),
       (ACTIONS 11, 1, [sym__documentation_block_comment]), (STATE 1495, 2, [sym_comment,
       sym_documentation_comment]), (ACTIONS 2926, 7, [anon_sym_QMARK, anon_sym_LT, anon_sym_GT,
       anon_sym_PIPE, anon_sym_AMP, anon_sym_GT_GT, anon_sym_SLASH]), (ACTIONS 2924, 22,
       [anon_sym_RBRACE, anon_sym_COMMA, anon_sym_RBRACK, anon_sym_COLON, anon_sym_RPAREN,
       anon_sym_QMARK_QMARK, sym_equality_operator, anon_sym_LT_EQ, anon_sym_GT_EQ,
       anon_sym_CARET, anon_sym_LT_LT, anon_sym_GT_GT_GT, sym__additive_operator, anon_sym_STAR,
       anon_sym_PERCENT, anon_sym_TILDE_SLASH, anon_sym_is, anon_sym_as, anon_sym_EQ_GT,
       anon_sym_when, anon_sym_AMP_AMP, anon_sym_PIPE_PIPE])])]"

lemma small_run_547: "small_run 1493 75853 ts_small_parse_table_547 1496 76016"
  by (simp add: small_simps ts_small_parse_table_547_def)

definition ts_small_parse_table_548 :: "small_group list" where
  "ts_small_parse_table_548 = [
     (76016, 8, [(ACTIONS 3, 1, [anon_sym_SLASH_SLASH]), (ACTIONS 5, 1, [anon_sym_SLASH_STAR]),
       (ACTIONS 7, 1, [anon_sym_SLASH_SLASH_SLASH]), (ACTIONS 9, 1, [sym__block_comment]),
       (ACTIONS 11, 1, [sym__documentation_block_comment]), (STATE 1496, 2, [sym_comment,
       sym_documentation_comment]), (ACTIONS 2130, 7, [anon_sym_QMARK, anon_sym_LT, anon_sym_GT,
       anon_sym_PIPE, anon_sym_AMP, anon_sym_GT_GT, anon_sym_SLASH]), (ACTIONS 2128, 22,
       [anon_sym_RBRACE, anon_sym_COMMA, anon_sym_RBRACK, anon_sym_COLON, anon_sym_RPAREN,
       anon_sym_QMARK_QMARK, sym_equality_operator, anon_sym_LT_EQ, anon_sym_GT_EQ,
       anon_sym_CARET, anon_sym_LT_LT, anon_sym_GT_GT_GT, sym__additive_operator, anon_sym_STAR,
       anon_sym_PERCENT, anon_sym_TILDE_SLASH, anon_sym_is, anon_sym_as, anon_sym_EQ_GT,
       anon_sym_when, anon_sym_AMP_AMP, anon_sym_PIPE_PIPE])]),
     (76069, 8, [(ACTIONS 3, 1, [anon_sym_SLASH_SLASH]), (ACTIONS 5, 1, [anon_sym_SLASH_STAR]),
       (ACTIONS 7, 1, [anon_sym_SLASH_SLASH_SLASH]), (ACTIONS 9, 1, [sym__block_comment]),
       (ACTIONS 11, 1, [sym__documentation_block_comment]), (STATE 1497, 2, [sym_comment,
       sym_documentation_comment]), (ACTIONS 1412, 6, [anon_sym_QMARK, anon_sym_LT, anon_sym_GT,
       anon_sym_PIPE, anon_sym_AMP, anon_sym_GT_GT]), (ACTIONS 1410, 23, [anon_sym_RBRACE,
       anon_sym_COMMA, anon_sym_RBRACK, anon_sym_COLON, anon_sym_RPAREN, anon_sym_QMARK_QMARK,
       sym_equality_operator, anon_sym_LT_EQ, anon_sym_GT_EQ, anon_sym_CARET, anon_sym_LT_LT,
       anon_sym_GT_GT_GT, sym__additive_operator, anon_sym_is, anon_sym_as, anon_sym_DOT_DOT,
       anon_sym_QMARK_DOT_DOT, anon_sym_SEMI, anon_sym_EQ_GT, anon_sym_case, anon_sym_else,
       anon_sym_AMP_AMP, anon_sym_PIPE_PIPE])]),
     (76122, 14, [(ACTIONS 3, 1, [anon_sym_SLASH_SLASH]), (ACTIONS 5, 1,
       [anon_sym_SLASH_STAR]), (ACTIONS 7, 1, [anon_sym_SLASH_SLASH_SLASH]), (ACTIONS 9, 1,
       [sym__block_comment]), (ACTIONS 11, 1, [sym__documentation_block_comment]), (ACTIONS 3506,
       1, [anon_sym_LPAREN]), (ACTIONS 3508, 1, [anon_sym_QMARK]), (ACTIONS 3511, 1,
       [anon_sym_LT]), (STATE 1557, 1, [sym_type_parameters]), (STATE 1607, 1,
       [sym_nullable_type]), (STATE 1667, 1, [sym_parameter_type_list]), (STATE 1498, 2,
       [sym_comment, sym_documentation_comment]), (ACTIONS 2460, 11, [anon_sym_when,
       anon_sym_catch, anon_sym_with, anon_sym_Function, anon_sym_get, anon_sym_implements,
       anon_sym_operator, anon_sym_set, anon_sym_this, anon_sym_super, sym_identifier]), (ACTIONS
       2449, 12, [anon_sym_LBRACE, anon_sym_RBRACE, anon_sym_COMMA, anon_sym_RBRACK,
       anon_sym_COLON, anon_sym_RPAREN, anon_sym_GT, anon_sym_DOT, anon_sym_SEMI, anon_sym_EQ_GT,
       anon_sym_AMP_AMP, anon_sym_PIPE_PIPE])])]"

lemma small_run_548: "small_run 1496 76016 ts_small_parse_table_548 1499 76187"
  by (simp add: small_simps ts_small_parse_table_548_def)

definition ts_small_parse_table_549 :: "small_group list" where
  "ts_small_parse_table_549 = [
     (76187, 8, [(ACTIONS 3, 1, [anon_sym_SLASH_SLASH]), (ACTIONS 5, 1, [anon_sym_SLASH_STAR]),
       (ACTIONS 7, 1, [anon_sym_SLASH_SLASH_SLASH]), (ACTIONS 9, 1, [sym__block_comment]),
       (ACTIONS 11, 1, [sym__documentation_block_comment]), (STATE 1499, 2, [sym_comment,
       sym_documentation_comment]), (ACTIONS 1674, 7, [anon_sym_QMARK, anon_sym_LT, anon_sym_GT,
       anon_sym_PIPE, anon_sym_AMP, anon_sym_GT_GT, anon_sym_SLASH]), (ACTIONS 1676, 22,
       [anon_sym_RBRACE, anon_sym_COMMA, anon_sym_RBRACK, anon_sym_COLON, anon_sym_RPAREN,
       anon_sym_QMARK_QMARK, sym_equality_operator, anon_sym_LT_EQ, anon_sym_GT_EQ,
       anon_sym_CARET, anon_sym_LT_LT, anon_sym_GT_GT_GT, sym__additive_operator, anon_sym_STAR,
       anon_sym_PERCENT, anon_sym_TILDE_SLASH, anon_sym_is, anon_sym_as, anon_sym_EQ_GT,
       anon_sym_when, anon_sym_AMP_AMP, anon_sym_PIPE_PIPE])]),
     (76240, 8, [(ACTIONS 3, 1, [anon_sym_SLASH_SLASH]), (ACTIONS 5, 1, [anon_sym_SLASH_STAR]),
       (ACTIONS 7, 1, [anon_sym_SLASH_SLASH_SLASH]), (ACTIONS 9, 1, [sym__block_comment]),
       (ACTIONS 11, 1, [sym__documentation_block_comment]), (STATE 1500, 2, [sym_comment,
       sym_documentation_comment]), (ACTIONS 2764, 6, [anon_sym_QMARK, anon_sym_LT, anon_sym_GT,
       anon_sym_PIPE, anon_sym_AMP, anon_sym_GT_GT]), (ACTIONS 2762, 23, [anon_sym_RBRACE,
       anon_sym_COMMA, anon_sym_RBRACK, anon_sym_COLON, anon_sym_RPAREN, anon_sym_QMARK_QMARK,
       sym_equality_operator, anon_sym_LT_EQ, anon_sym_GT_EQ, anon_sym_CARET, anon_sym_LT_LT,
       anon_sym_GT_GT_GT, sym__additive_operator, anon_sym_is, anon_sym_as, anon_sym_DOT_DOT,
       anon_sym_QMARK_DOT_DOT, anon_sym_SEMI, anon_sym_EQ_GT, anon_sym_case, anon_sym_else,
       anon_sym_AMP_AMP, anon_sym_PIPE_PIPE])]),
     (76293, 8, [(ACTIONS 3, 1, [anon_sym_SLASH_SLASH]), (ACTIONS 5, 1, [anon_sym_SLASH_STAR]),
       (ACTIONS 7, 1, [anon_sym_SLASH_SLASH_SLASH]), (ACTIONS 9, 1, [sym__block_comment]),
       (ACTIONS 11, 1, [sym__documentation_block_comment]), (STATE 1501, 2, [sym_comment,
       sym_documentation_comment]), (ACTIONS 2842, 6, [anon_sym_QMARK, anon_sym_LT, anon_sym_GT,
       anon_sym_PIPE, anon_sym_AMP, anon_sym_GT_GT]), (ACTIONS 2840, 23, [anon_sym_RBRACE,
       anon_sym_COMMA, anon_sym_RBRACK, anon_sym_COLON, anon_sym_RPAREN, anon_sym_QMARK_QMARK,
       sym_equality_operator, anon_sym_LT_EQ, anon_sym_GT_EQ, anon_sym_CARET, anon_sym_LT_LT,
       anon_sym_GT_GT_GT, sym__additive_operator, anon_sym_is, anon_sym_as, anon_sym_DOT_DOT,
       anon_sym_QMARK_DOT_DOT, anon_sym_SEMI, anon_sym_EQ_GT, anon_sym_case, anon_sym_else,
       anon_sym_AMP_AMP, anon_sym_PIPE_PIPE])])]"

lemma small_run_549: "small_run 1499 76187 ts_small_parse_table_549 1502 76346"
  by (simp add: small_simps ts_small_parse_table_549_def)

definition ts_small_parse_table_550 :: "small_group list" where
  "ts_small_parse_table_550 = [
     (76346, 8, [(ACTIONS 3, 1, [anon_sym_SLASH_SLASH]), (ACTIONS 5, 1, [anon_sym_SLASH_STAR]),
       (ACTIONS 7, 1, [anon_sym_SLASH_SLASH_SLASH]), (ACTIONS 9, 1, [sym__block_comment]),
       (ACTIONS 11, 1, [sym__documentation_block_comment]), (STATE 1502, 2, [sym_comment,
       sym_documentation_comment]), (ACTIONS 2838, 6, [anon_sym_QMARK, anon_sym_LT, anon_sym_GT,
       anon_sym_PIPE, anon_sym_AMP, anon_sym_GT_GT]), (ACTIONS 2836, 23, [anon_sym_RBRACE,
       anon_sym_COMMA, anon_sym_RBRACK, anon_sym_COLON, anon_sym_RPAREN, anon_sym_QMARK_QMARK,
       sym_equality_operator, anon_sym_LT_EQ, anon_sym_GT_EQ, anon_sym_CARET, anon_sym_LT_LT,
       anon_sym_GT_GT_GT, sym__additive_operator, anon_sym_is, anon_sym_as, anon_sym_DOT_DOT,
       anon_sym_QMARK_DOT_DOT, anon_sym_SEMI, anon_sym_EQ_GT, anon_sym_case, anon_sym_else,
       anon_sym_AMP_AMP, anon_sym_PIPE_PIPE])]),
     (76399, 8, [(ACTIONS 3, 1, [anon_sym_SLASH_SLASH]), (ACTIONS 5, 1, [anon_sym_SLASH_STAR]),
       (ACTIONS 7, 1, [anon_sym_SLASH_SLASH_SLASH]), (ACTIONS 9, 1, [sym__block_comment]),
       (ACTIONS 11, 1, [sym__documentation_block_comment]), (STATE 1503, 2, [sym_comment,
       sym_documentation_comment]), (ACTIONS 2722, 8, [anon_sym_QMARK, anon_sym_LT, anon_sym_GT,
       anon_sym_PIPE, anon_sym_AMP, anon_sym_GT_GT, anon_sym_as, anon_sym_async]), (ACTIONS 2720,
       20, [anon_sym_LBRACE, anon_sym_COMMA, anon_sym_QMARK_QMARK, sym_equality_operator,
       anon_sym_LT_EQ, anon_sym_GT_EQ, anon_sym_CARET, anon_sym_LT_LT, anon_sym_GT_GT_GT,
       sym__additive_operator, anon_sym_is, anon_sym_DOT_DOT, anon_sym_QMARK_DOT_DOT,
       anon_sym_SEMI, anon_sym_EQ_GT, anon_sym_async_STAR, anon_sym_sync_STAR, anon_sym_Function,
       anon_sym_AMP_AMP, anon_sym_PIPE_PIPE])]),
     (76451, 8, [(ACTIONS 3, 1, [anon_sym_SLASH_SLASH]), (ACTIONS 5, 1, [anon_sym_SLASH_STAR]),
       (ACTIONS 7, 1, [anon_sym_SLASH_SLASH_SLASH]), (ACTIONS 9, 1, [sym__block_comment]),
       (ACTIONS 11, 1, [sym__documentation_block_comment]), (STATE 1504, 2, [sym_comment,
       sym_documentation_comment]), (ACTIONS 2745, 14, [anon_sym_LBRACE, anon_sym_RBRACE,
       anon_sym_COMMA, anon_sym_RBRACK, anon_sym_COLON, anon_sym_LPAREN, anon_sym_RPAREN,
       anon_sym_QMARK, anon_sym_GT, anon_sym_DOT, anon_sym_SEMI, anon_sym_EQ_GT,
       anon_sym_AMP_AMP, anon_sym_PIPE_PIPE]), (ACTIONS 2747, 14, [anon_sym_EQ, anon_sym_extends,
       anon_sym_when, anon_sym_on, anon_sym_catch, anon_sym_with, anon_sym_Function,
       anon_sym_get, anon_sym_implements, anon_sym_operator, anon_sym_set, anon_sym_this,
       anon_sym_super, sym_identifier])])]"

lemma small_run_550: "small_run 1502 76346 ts_small_parse_table_550 1505 76503"
  by (simp add: small_simps ts_small_parse_table_550_def)

definition ts_small_parse_table_551 :: "small_group list" where
  "ts_small_parse_table_551 = [
     (76503, 8, [(ACTIONS 3, 1, [anon_sym_SLASH_SLASH]), (ACTIONS 5, 1, [anon_sym_SLASH_STAR]),
       (ACTIONS 7, 1, [anon_sym_SLASH_SLASH_SLASH]), (ACTIONS 9, 1, [sym__block_comment]),
       (ACTIONS 11, 1, [sym__documentation_block_comment]), (STATE 1505, 2, [sym_comment,
       sym_documentation_comment]), (ACTIONS 2655, 8, [anon_sym_QMARK, anon_sym_LT, anon_sym_GT,
       anon_sym_PIPE, anon_sym_AMP, anon_sym_GT_GT, anon_sym_as, anon_sym_async]), (ACTIONS 2653,
       20, [anon_sym_LBRACE, anon_sym_COMMA, anon_sym_QMARK_QMARK, sym_equality_operator,
       anon_sym_LT_EQ, anon_sym_GT_EQ, anon_sym_CARET, anon_sym_LT_LT, anon_sym_GT_GT_GT,
       sym__additive_operator, anon_sym_is, anon_sym_DOT_DOT, anon_sym_QMARK_DOT_DOT,
       anon_sym_SEMI, anon_sym_EQ_GT, anon_sym_async_STAR, anon_sym_sync_STAR, anon_sym_Function,
       anon_sym_AMP_AMP, anon_sym_PIPE_PIPE])]),
     (76555, 8, [(ACTIONS 3, 1, [anon_sym_SLASH_SLASH]), (ACTIONS 5, 1, [anon_sym_SLASH_STAR]),
       (ACTIONS 7, 1, [anon_sym_SLASH_SLASH_SLASH]), (ACTIONS 9, 1, [sym__block_comment]),
       (ACTIONS 11, 1, [sym__documentation_block_comment]), (STATE 1506, 2, [sym_comment,
       sym_documentation_comment]), (ACTIONS 2680, 8, [anon_sym_QMARK, anon_sym_LT, anon_sym_GT,
       anon_sym_PIPE, anon_sym_AMP, anon_sym_GT_GT, anon_sym_as, anon_sym_async]), (ACTIONS 2678,
       20, [anon_sym_LBRACE, anon_sym_COMMA, anon_sym_QMARK_QMARK, sym_equality_operator,
       anon_sym_LT_EQ, anon_sym_GT_EQ, anon_sym_CARET, anon_sym_LT_LT, anon_sym_GT_GT_GT,
       sym__additive_operator, anon_sym_is, anon_sym_DOT_DOT, anon_sym_QMARK_DOT_DOT,
       anon_sym_SEMI, anon_sym_EQ_GT, anon_sym_async_STAR, anon_sym_sync_STAR, anon_sym_Function,
       anon_sym_AMP_AMP, anon_sym_PIPE_PIPE])]),
     (76607, 8, [(ACTIONS 3, 1, [anon_sym_SLASH_SLASH]), (ACTIONS 5, 1, [anon_sym_SLASH_STAR]),
       (ACTIONS 7, 1, [anon_sym_SLASH_SLASH_SLASH]), (ACTIONS 9, 1, [sym__block_comment]),
       (ACTIONS 11, 1, [sym__documentation_block_comment]), (STATE 1507, 2, [sym_comment,
       sym_documentation_comment]), (ACTIONS 2651, 8, [anon_sym_QMARK, anon_sym_LT, anon_sym_GT,
       anon_sym_PIPE, anon_sym_AMP, anon_sym_GT_GT, anon_sym_as, anon_sym_async]), (ACTIONS 2649,
       20, [anon_sym_LBRACE, anon_sym_COMMA, anon_sym_QMARK_QMARK, sym_equality_operator,
       anon_sym_LT_EQ, anon_sym_GT_EQ, anon_sym_CARET, anon_sym_LT_LT, anon_sym_GT_GT_GT,
       sym__additive_operator, anon_sym_is, anon_sym_DOT_DOT, anon_sym_QMARK_DOT_DOT,
       anon_sym_SEMI, anon_sym_EQ_GT, anon_sym_async_STAR, anon_sym_sync_STAR, anon_sym_Function,
       anon_sym_AMP_AMP, anon_sym_PIPE_PIPE])])]"

lemma small_run_551: "small_run 1505 76503 ts_small_parse_table_551 1508 76659"
  by (simp add: small_simps ts_small_parse_table_551_def)

definition ts_small_parse_table_part_5 :: "small_group list" where
  "ts_small_parse_table_part_5 =
     ts_small_parse_table_456 @ ts_small_parse_table_457 @ ts_small_parse_table_458 @
     ts_small_parse_table_459 @ ts_small_parse_table_460 @ ts_small_parse_table_461 @
     ts_small_parse_table_462 @ ts_small_parse_table_463 @ ts_small_parse_table_464 @
     ts_small_parse_table_465 @ ts_small_parse_table_466 @ ts_small_parse_table_467 @
     ts_small_parse_table_468 @ ts_small_parse_table_469 @ ts_small_parse_table_470 @
     ts_small_parse_table_471 @ ts_small_parse_table_472 @ ts_small_parse_table_473 @
     ts_small_parse_table_474 @ ts_small_parse_table_475 @ ts_small_parse_table_476 @
     ts_small_parse_table_477 @ ts_small_parse_table_478 @ ts_small_parse_table_479 @
     ts_small_parse_table_480 @ ts_small_parse_table_481 @ ts_small_parse_table_482 @
     ts_small_parse_table_483 @ ts_small_parse_table_484 @ ts_small_parse_table_485 @
     ts_small_parse_table_486 @ ts_small_parse_table_487 @ ts_small_parse_table_488 @
     ts_small_parse_table_489 @ ts_small_parse_table_490 @ ts_small_parse_table_491 @
     ts_small_parse_table_492 @ ts_small_parse_table_493 @ ts_small_parse_table_494 @
     ts_small_parse_table_495 @ ts_small_parse_table_496 @ ts_small_parse_table_497 @
     ts_small_parse_table_498 @ ts_small_parse_table_499 @ ts_small_parse_table_500 @
     ts_small_parse_table_501 @ ts_small_parse_table_502 @ ts_small_parse_table_503 @
     ts_small_parse_table_504 @ ts_small_parse_table_505 @ ts_small_parse_table_506 @
     ts_small_parse_table_507 @ ts_small_parse_table_508 @ ts_small_parse_table_509 @
     ts_small_parse_table_510 @ ts_small_parse_table_511 @ ts_small_parse_table_512 @
     ts_small_parse_table_513 @ ts_small_parse_table_514 @ ts_small_parse_table_515 @
     ts_small_parse_table_516 @ ts_small_parse_table_517 @ ts_small_parse_table_518 @
     ts_small_parse_table_519 @ ts_small_parse_table_520 @ ts_small_parse_table_521 @
     ts_small_parse_table_522 @ ts_small_parse_table_523 @ ts_small_parse_table_524 @
     ts_small_parse_table_525 @ ts_small_parse_table_526 @ ts_small_parse_table_527 @
     ts_small_parse_table_528 @ ts_small_parse_table_529 @ ts_small_parse_table_530 @
     ts_small_parse_table_531 @ ts_small_parse_table_532 @ ts_small_parse_table_533 @
     ts_small_parse_table_534 @ ts_small_parse_table_535 @ ts_small_parse_table_536 @
     ts_small_parse_table_537 @ ts_small_parse_table_538 @ ts_small_parse_table_539 @
     ts_small_parse_table_540 @ ts_small_parse_table_541 @ ts_small_parse_table_542 @
     ts_small_parse_table_543 @ ts_small_parse_table_544 @ ts_small_parse_table_545 @
     ts_small_parse_table_546 @ ts_small_parse_table_547 @ ts_small_parse_table_548 @
     ts_small_parse_table_549 @ ts_small_parse_table_550 @ ts_small_parse_table_551"

lemma small_part_5: "small_run 1258 61384 ts_small_parse_table_part_5 1508 76659"
  unfolding ts_small_parse_table_part_5_def
  by (rule small_run_append [OF small_run_456], rule small_run_append [OF small_run_457],
    rule small_run_append [OF small_run_458], rule small_run_append [OF small_run_459],
    rule small_run_append [OF small_run_460], rule small_run_append [OF small_run_461],
    rule small_run_append [OF small_run_462], rule small_run_append [OF small_run_463],
    rule small_run_append [OF small_run_464], rule small_run_append [OF small_run_465],
    rule small_run_append [OF small_run_466], rule small_run_append [OF small_run_467],
    rule small_run_append [OF small_run_468], rule small_run_append [OF small_run_469],
    rule small_run_append [OF small_run_470], rule small_run_append [OF small_run_471],
    rule small_run_append [OF small_run_472], rule small_run_append [OF small_run_473],
    rule small_run_append [OF small_run_474], rule small_run_append [OF small_run_475],
    rule small_run_append [OF small_run_476], rule small_run_append [OF small_run_477],
    rule small_run_append [OF small_run_478], rule small_run_append [OF small_run_479],
    rule small_run_append [OF small_run_480], rule small_run_append [OF small_run_481],
    rule small_run_append [OF small_run_482], rule small_run_append [OF small_run_483],
    rule small_run_append [OF small_run_484], rule small_run_append [OF small_run_485],
    rule small_run_append [OF small_run_486], rule small_run_append [OF small_run_487],
    rule small_run_append [OF small_run_488], rule small_run_append [OF small_run_489],
    rule small_run_append [OF small_run_490], rule small_run_append [OF small_run_491],
    rule small_run_append [OF small_run_492], rule small_run_append [OF small_run_493],
    rule small_run_append [OF small_run_494], rule small_run_append [OF small_run_495],
    rule small_run_append [OF small_run_496], rule small_run_append [OF small_run_497],
    rule small_run_append [OF small_run_498], rule small_run_append [OF small_run_499],
    rule small_run_append [OF small_run_500], rule small_run_append [OF small_run_501],
    rule small_run_append [OF small_run_502], rule small_run_append [OF small_run_503],
    rule small_run_append [OF small_run_504], rule small_run_append [OF small_run_505],
    rule small_run_append [OF small_run_506], rule small_run_append [OF small_run_507],
    rule small_run_append [OF small_run_508], rule small_run_append [OF small_run_509],
    rule small_run_append [OF small_run_510], rule small_run_append [OF small_run_511],
    rule small_run_append [OF small_run_512], rule small_run_append [OF small_run_513],
    rule small_run_append [OF small_run_514], rule small_run_append [OF small_run_515],
    rule small_run_append [OF small_run_516], rule small_run_append [OF small_run_517],
    rule small_run_append [OF small_run_518], rule small_run_append [OF small_run_519],
    rule small_run_append [OF small_run_520], rule small_run_append [OF small_run_521],
    rule small_run_append [OF small_run_522], rule small_run_append [OF small_run_523],
    rule small_run_append [OF small_run_524], rule small_run_append [OF small_run_525],
    rule small_run_append [OF small_run_526], rule small_run_append [OF small_run_527],
    rule small_run_append [OF small_run_528], rule small_run_append [OF small_run_529],
    rule small_run_append [OF small_run_530], rule small_run_append [OF small_run_531],
    rule small_run_append [OF small_run_532], rule small_run_append [OF small_run_533],
    rule small_run_append [OF small_run_534], rule small_run_append [OF small_run_535],
    rule small_run_append [OF small_run_536], rule small_run_append [OF small_run_537],
    rule small_run_append [OF small_run_538], rule small_run_append [OF small_run_539],
    rule small_run_append [OF small_run_540], rule small_run_append [OF small_run_541],
    rule small_run_append [OF small_run_542], rule small_run_append [OF small_run_543],
    rule small_run_append [OF small_run_544], rule small_run_append [OF small_run_545],
    rule small_run_append [OF small_run_546], rule small_run_append [OF small_run_547],
    rule small_run_append [OF small_run_548], rule small_run_append [OF small_run_549],
    rule small_run_append [OF small_run_550], rule small_run_551)

end
