(* ===== verification/Dart_Small_6.thy ===== *)
theory Dart_Small_6
  imports Dart_Items
begin

text \<open>
  The groups of \<^verbatim>\<open>ts_small_parse_table\<close> for the states 1508 to 1789, in blocks of at most 150 lines of
  the source, each with the check of its layout and of its entries.
\<close>

definition ts_small_parse_table_552 :: "small_group list" where
  "ts_small_parse_table_552 = [
     (76659, 8, [(ACTIONS 3, 1, [anon_sym_SLASH_SLASH]), (ACTIONS 5, 1, [anon_sym_SLASH_STAR]),
       (ACTIONS 7, 1, [anon_sym_SLASH_SLASH_SLASH]), (ACTIONS 9, 1, [sym__block_comment]),
       (ACTIONS 11, 1, [sym__documentation_block_comment]), (STATE 1508, 2, [sym_comment,
       sym_documentation_comment]), (ACTIONS 2714, 8, [anon_sym_QMARK, anon_sym_LT, anon_sym_GT,
       anon_sym_PIPE, anon_sym_AMP, anon_sym_GT_GT, anon_sym_as, anon_sym_async]), (ACTIONS 2712,
       20, [anon_sym_LBRACE, anon_sym_COMMA, anon_sym_QMARK_QMARK, sym_equality_operator,
       anon_sym_LT_EQ, anon_sym_GT_EQ, anon_sym_CARET, anon_sym_LT_LT, anon_sym_GT_GT_GT,
       sym__additive_operator, anon_sym_is, anon_sym_DOT_DOT, anon_sym_QMARK_DOT_DOT,
       anon_sym_SEMI, anon_sym_EQ_GT, anon_sym_async_STAR, anon_sym_sync_STAR, anon_sym_Function,
       anon_sym_AMP_AMP, anon_sym_PIPE_PIPE])]),
     (76711, 22, [(ACTIONS 3, 1, [anon_sym_SLASH_SLASH]), (ACTIONS 5, 1,
       [anon_sym_SLASH_STAR]), (ACTIONS 7, 1, [anon_sym_SLASH_SLASH_SLASH]), (ACTIONS 9, 1,
       [sym__block_comment]), (ACTIONS 11, 1, [sym__documentation_block_comment]), (ACTIONS 1273,
       1, [anon_sym_GT_GT]), (ACTIONS 1275, 1, [sym__additive_operator]), (ACTIONS 2477, 1,
       [anon_sym_SLASH]), (ACTIONS 3570, 1, [anon_sym_EQ_EQ]), (ACTIONS 3572, 1,
       [anon_sym_LBRACK_RBRACK_EQ]), (STATE 1397, 1, [sym__shift_operator]), (STATE 1416, 1,
       [sym__multiplicative_operator]), (STATE 2936, 1, [sym_binary_operator]), (STATE 3346, 1,
       [sym__bitwise_operator]), (ACTIONS 400, 2, [anon_sym_LT, anon_sym_GT]), (ACTIONS 402, 2,
       [anon_sym_LT_EQ, anon_sym_GT_EQ]), (ACTIONS 1271, 2, [anon_sym_LT_LT, anon_sym_GT_GT_GT]),
       (ACTIONS 3568, 2, [anon_sym_TILDE, anon_sym_LBRACK_RBRACK]), (STATE 1509, 2, [sym_comment,
       sym_documentation_comment]), (ACTIONS 2475, 3, [anon_sym_STAR, anon_sym_PERCENT,
       anon_sym_TILDE_SLASH]), (ACTIONS 3566, 3, [anon_sym_PIPE, anon_sym_CARET, anon_sym_AMP]),
       (STATE 3345, 5, [sym_relational_operator, sym_bitwise_operator, sym_shift_operator,
       sym_additive_operator, sym_multiplicative_operator])]),
     (76791, 8, [(ACTIONS 3, 1, [anon_sym_SLASH_SLASH]), (ACTIONS 5, 1, [anon_sym_SLASH_STAR]),
       (ACTIONS 7, 1, [anon_sym_SLASH_SLASH_SLASH]), (ACTIONS 9, 1, [sym__block_comment]),
       (ACTIONS 11, 1, [sym__documentation_block_comment]), (STATE 1510, 2, [sym_comment,
       sym_documentation_comment]), (ACTIONS 2774, 8, [anon_sym_QMARK, anon_sym_LT, anon_sym_GT,
       anon_sym_PIPE, anon_sym_AMP, anon_sym_GT_GT, anon_sym_as, anon_sym_async]), (ACTIONS 2772,
       20, [anon_sym_LBRACE, anon_sym_COMMA, anon_sym_QMARK_QMARK, sym_equality_operator,
       anon_sym_LT_EQ, anon_sym_GT_EQ, anon_sym_CARET, anon_sym_LT_LT, anon_sym_GT_GT_GT,
       sym__additive_operator, anon_sym_is, anon_sym_DOT_DOT, anon_sym_QMARK_DOT_DOT,
       anon_sym_SEMI, anon_sym_EQ_GT, anon_sym_async_STAR, anon_sym_sync_STAR, anon_sym_Function,
       anon_sym_AMP_AMP, anon_sym_PIPE_PIPE])])]"

lemma small_run_552: "small_run 1508 76659 ts_small_parse_table_552 1511 76843"
  by (simp add: small_simps ts_small_parse_table_552_def)

definition ts_small_parse_table_553 :: "small_group list" where
  "ts_small_parse_table_553 = [
     (76843, 12, [(ACTIONS 3, 1, [anon_sym_SLASH_SLASH]), (ACTIONS 5, 1,
       [anon_sym_SLASH_STAR]), (ACTIONS 7, 1, [anon_sym_SLASH_SLASH_SLASH]), (ACTIONS 9, 1,
       [sym__block_comment]), (ACTIONS 11, 1, [sym__documentation_block_comment]), (ACTIONS 3574,
       1, [anon_sym_QMARK]), (ACTIONS 3577, 1, [anon_sym_LT]), (STATE 1600, 1,
       [sym_type_arguments]), (STATE 1628, 1, [sym_nullable_type]), (STATE 1511, 2, [sym_comment,
       sym_documentation_comment]), (ACTIONS 2539, 4, [anon_sym_GT, anon_sym_PIPE, anon_sym_AMP,
       anon_sym_GT_GT]), (ACTIONS 2531, 20, [anon_sym_RBRACE, anon_sym_COMMA, anon_sym_RBRACK,
       anon_sym_COLON, anon_sym_RPAREN, anon_sym_QMARK_QMARK, sym_equality_operator,
       anon_sym_LT_EQ, anon_sym_GT_EQ, anon_sym_CARET, anon_sym_LT_LT, anon_sym_GT_GT_GT,
       sym__additive_operator, anon_sym_is, anon_sym_as, anon_sym_EQ_GT, anon_sym_when,
       anon_sym_Function, anon_sym_AMP_AMP, anon_sym_PIPE_PIPE])]),
     (76903, 8, [(ACTIONS 3, 1, [anon_sym_SLASH_SLASH]), (ACTIONS 5, 1, [anon_sym_SLASH_STAR]),
       (ACTIONS 7, 1, [anon_sym_SLASH_SLASH_SLASH]), (ACTIONS 9, 1, [sym__block_comment]),
       (ACTIONS 11, 1, [sym__documentation_block_comment]), (STATE 1512, 2, [sym_comment,
       sym_documentation_comment]), (ACTIONS 2692, 8, [anon_sym_QMARK, anon_sym_LT, anon_sym_GT,
       anon_sym_PIPE, anon_sym_AMP, anon_sym_GT_GT, anon_sym_as, anon_sym_async]), (ACTIONS 2690,
       20, [anon_sym_LBRACE, anon_sym_COMMA, anon_sym_QMARK_QMARK, sym_equality_operator,
       anon_sym_LT_EQ, anon_sym_GT_EQ, anon_sym_CARET, anon_sym_LT_LT, anon_sym_GT_GT_GT,
       sym__additive_operator, anon_sym_is, anon_sym_DOT_DOT, anon_sym_QMARK_DOT_DOT,
       anon_sym_SEMI, anon_sym_EQ_GT, anon_sym_async_STAR, anon_sym_sync_STAR, anon_sym_Function,
       anon_sym_AMP_AMP, anon_sym_PIPE_PIPE])]),
     (76955, 9, [(ACTIONS 3, 1, [anon_sym_SLASH_SLASH]), (ACTIONS 5, 1, [anon_sym_SLASH_STAR]),
       (ACTIONS 7, 1, [anon_sym_SLASH_SLASH_SLASH]), (ACTIONS 9, 1, [sym__block_comment]),
       (ACTIONS 11, 1, [sym__documentation_block_comment]), (STATE 1525, 1,
       [aux_sym_bitwise_or_expression_repeat1]), (STATE 1513, 2, [sym_comment,
       sym_documentation_comment]), (ACTIONS 2612, 8, [anon_sym_QMARK, anon_sym_LT, anon_sym_GT,
       anon_sym_PIPE, anon_sym_AMP, anon_sym_GT_GT, anon_sym_as, anon_sym_async]), (ACTIONS 2610,
       19, [anon_sym_LBRACE, anon_sym_COMMA, anon_sym_QMARK_QMARK, sym_equality_operator,
       anon_sym_LT_EQ, anon_sym_GT_EQ, anon_sym_CARET, anon_sym_LT_LT, anon_sym_GT_GT_GT,
       sym__additive_operator, anon_sym_is, anon_sym_DOT_DOT, anon_sym_QMARK_DOT_DOT,
       anon_sym_SEMI, anon_sym_EQ_GT, anon_sym_async_STAR, anon_sym_sync_STAR, anon_sym_AMP_AMP,
       anon_sym_PIPE_PIPE])])]"

lemma small_run_553: "small_run 1511 76843 ts_small_parse_table_553 1514 77009"
  by (simp add: small_simps ts_small_parse_table_553_def)

definition ts_small_parse_table_554 :: "small_group list" where
  "ts_small_parse_table_554 = [
     (77009, 9, [(ACTIONS 3, 1, [anon_sym_SLASH_SLASH]), (ACTIONS 5, 1, [anon_sym_SLASH_STAR]),
       (ACTIONS 7, 1, [anon_sym_SLASH_SLASH_SLASH]), (ACTIONS 9, 1, [sym__block_comment]),
       (ACTIONS 11, 1, [sym__documentation_block_comment]), (STATE 1526, 1,
       [aux_sym_bitwise_xor_expression_repeat1]), (STATE 1514, 2, [sym_comment,
       sym_documentation_comment]), (ACTIONS 2616, 8, [anon_sym_QMARK, anon_sym_LT, anon_sym_GT,
       anon_sym_PIPE, anon_sym_AMP, anon_sym_GT_GT, anon_sym_as, anon_sym_async]), (ACTIONS 2614,
       19, [anon_sym_LBRACE, anon_sym_COMMA, anon_sym_QMARK_QMARK, sym_equality_operator,
       anon_sym_LT_EQ, anon_sym_GT_EQ, anon_sym_CARET, anon_sym_LT_LT, anon_sym_GT_GT_GT,
       sym__additive_operator, anon_sym_is, anon_sym_DOT_DOT, anon_sym_QMARK_DOT_DOT,
       anon_sym_SEMI, anon_sym_EQ_GT, anon_sym_async_STAR, anon_sym_sync_STAR, anon_sym_AMP_AMP,
       anon_sym_PIPE_PIPE])]),
     (77063, 8, [(ACTIONS 3, 1, [anon_sym_SLASH_SLASH]), (ACTIONS 5, 1, [anon_sym_SLASH_STAR]),
       (ACTIONS 7, 1, [anon_sym_SLASH_SLASH_SLASH]), (ACTIONS 9, 1, [sym__block_comment]),
       (ACTIONS 11, 1, [sym__documentation_block_comment]), (STATE 1515, 2, [sym_comment,
       sym_documentation_comment]), (ACTIONS 2737, 14, [anon_sym_LBRACE, anon_sym_RBRACE,
       anon_sym_COMMA, anon_sym_RBRACK, anon_sym_COLON, anon_sym_LPAREN, anon_sym_RPAREN,
       anon_sym_QMARK, anon_sym_GT, anon_sym_DOT, anon_sym_SEMI, anon_sym_EQ_GT,
       anon_sym_AMP_AMP, anon_sym_PIPE_PIPE]), (ACTIONS 2739, 14, [anon_sym_EQ, anon_sym_extends,
       anon_sym_when, anon_sym_on, anon_sym_catch, anon_sym_with, anon_sym_Function,
       anon_sym_get, anon_sym_implements, anon_sym_operator, anon_sym_set, anon_sym_this,
       anon_sym_super, sym_identifier])]),
     (77115, 9, [(ACTIONS 3, 1, [anon_sym_SLASH_SLASH]), (ACTIONS 5, 1, [anon_sym_SLASH_STAR]),
       (ACTIONS 7, 1, [anon_sym_SLASH_SLASH_SLASH]), (ACTIONS 9, 1, [sym__block_comment]),
       (ACTIONS 11, 1, [sym__documentation_block_comment]), (STATE 1527, 1,
       [aux_sym_bitwise_and_expression_repeat1]), (STATE 1516, 2, [sym_comment,
       sym_documentation_comment]), (ACTIONS 2620, 8, [anon_sym_QMARK, anon_sym_LT, anon_sym_GT,
       anon_sym_PIPE, anon_sym_AMP, anon_sym_GT_GT, anon_sym_as, anon_sym_async]), (ACTIONS 2618,
       19, [anon_sym_LBRACE, anon_sym_COMMA, anon_sym_QMARK_QMARK, sym_equality_operator,
       anon_sym_LT_EQ, anon_sym_GT_EQ, anon_sym_CARET, anon_sym_LT_LT, anon_sym_GT_GT_GT,
       sym__additive_operator, anon_sym_is, anon_sym_DOT_DOT, anon_sym_QMARK_DOT_DOT,
       anon_sym_SEMI, anon_sym_EQ_GT, anon_sym_async_STAR, anon_sym_sync_STAR, anon_sym_AMP_AMP,
       anon_sym_PIPE_PIPE])])]"

lemma small_run_554: "small_run 1514 77009 ts_small_parse_table_554 1517 77169"
  by (simp add: small_simps ts_small_parse_table_554_def)

definition ts_small_parse_table_555 :: "small_group list" where
  "ts_small_parse_table_555 = [
     (77169, 11, [(ACTIONS 3, 1, [anon_sym_SLASH_SLASH]), (ACTIONS 5, 1,
       [anon_sym_SLASH_STAR]), (ACTIONS 7, 1, [anon_sym_SLASH_SLASH_SLASH]), (ACTIONS 9, 1,
       [sym__block_comment]), (ACTIONS 11, 1, [sym__documentation_block_comment]), (STATE 339, 1,
       [sym_shift_operator]), (STATE 1397, 1, [sym__shift_operator]), (STATE 1546, 1,
       [aux_sym_shift_expression_repeat1]), (STATE 1517, 2, [sym_comment,
       sym_documentation_comment]), (ACTIONS 2495, 9, [anon_sym_QMARK, anon_sym_LT, anon_sym_GT,
       anon_sym_PIPE, anon_sym_AMP, anon_sym_GT_GT, anon_sym_BANG, anon_sym_DOT,
       anon_sym_QMARK_DOT]), (ACTIONS 2493, 16, [anon_sym_LBRACK, anon_sym_LPAREN,
       anon_sym_QMARK_QMARK, sym_equality_operator, anon_sym_LT_EQ, anon_sym_GT_EQ,
       anon_sym_CARET, anon_sym_LT_LT, anon_sym_GT_GT_GT, sym__additive_operator, anon_sym_is,
       anon_sym_as, anon_sym_DOT_DOT, anon_sym_QMARK_DOT_DOT, anon_sym_AMP_AMP,
       anon_sym_PIPE_PIPE])]),
     (77227, 9, [(ACTIONS 3, 1, [anon_sym_SLASH_SLASH]), (ACTIONS 5, 1, [anon_sym_SLASH_STAR]),
       (ACTIONS 7, 1, [anon_sym_SLASH_SLASH_SLASH]), (ACTIONS 9, 1, [sym__block_comment]),
       (ACTIONS 11, 1, [sym__documentation_block_comment]), (ACTIONS 2766, 1,
       [anon_sym_Function]), (STATE 1518, 2, [sym_comment, sym_documentation_comment]), (ACTIONS
       2764, 8, [anon_sym_QMARK, anon_sym_LT, anon_sym_GT, anon_sym_PIPE, anon_sym_AMP,
       anon_sym_GT_GT, anon_sym_as, anon_sym_async]), (ACTIONS 2762, 19, [anon_sym_LBRACE,
       anon_sym_COMMA, anon_sym_QMARK_QMARK, sym_equality_operator, anon_sym_LT_EQ,
       anon_sym_GT_EQ, anon_sym_CARET, anon_sym_LT_LT, anon_sym_GT_GT_GT, sym__additive_operator,
       anon_sym_is, anon_sym_DOT_DOT, anon_sym_QMARK_DOT_DOT, anon_sym_SEMI, anon_sym_EQ_GT,
       anon_sym_async_STAR, anon_sym_sync_STAR, anon_sym_AMP_AMP, anon_sym_PIPE_PIPE])]),
     (77281, 8, [(ACTIONS 3, 1, [anon_sym_SLASH_SLASH]), (ACTIONS 5, 1, [anon_sym_SLASH_STAR]),
       (ACTIONS 7, 1, [anon_sym_SLASH_SLASH_SLASH]), (ACTIONS 9, 1, [sym__block_comment]),
       (ACTIONS 11, 1, [sym__documentation_block_comment]), (STATE 1519, 2, [sym_comment,
       sym_documentation_comment]), (ACTIONS 2770, 8, [anon_sym_QMARK, anon_sym_LT, anon_sym_GT,
       anon_sym_PIPE, anon_sym_AMP, anon_sym_GT_GT, anon_sym_as, anon_sym_async]), (ACTIONS 2768,
       20, [anon_sym_LBRACE, anon_sym_COMMA, anon_sym_QMARK_QMARK, sym_equality_operator,
       anon_sym_LT_EQ, anon_sym_GT_EQ, anon_sym_CARET, anon_sym_LT_LT, anon_sym_GT_GT_GT,
       sym__additive_operator, anon_sym_is, anon_sym_DOT_DOT, anon_sym_QMARK_DOT_DOT,
       anon_sym_SEMI, anon_sym_EQ_GT, anon_sym_async_STAR, anon_sym_sync_STAR, anon_sym_Function,
       anon_sym_AMP_AMP, anon_sym_PIPE_PIPE])])]"

lemma small_run_555: "small_run 1517 77169 ts_small_parse_table_555 1520 77333"
  by (simp add: small_simps ts_small_parse_table_555_def)

definition ts_small_parse_table_556 :: "small_group list" where
  "ts_small_parse_table_556 = [
     (77333, 9, [(ACTIONS 3, 1, [anon_sym_SLASH_SLASH]), (ACTIONS 5, 1, [anon_sym_SLASH_STAR]),
       (ACTIONS 7, 1, [anon_sym_SLASH_SLASH_SLASH]), (ACTIONS 9, 1, [sym__block_comment]),
       (ACTIONS 11, 1, [sym__documentation_block_comment]), (ACTIONS 3580, 1,
       [anon_sym_QMARK_QMARK]), (STATE 1520, 3, [aux_sym__if_null_expression, sym_comment,
       sym_documentation_comment]), (ACTIONS 2812, 8, [anon_sym_QMARK, anon_sym_LT, anon_sym_GT,
       anon_sym_PIPE, anon_sym_AMP, anon_sym_GT_GT, anon_sym_as, anon_sym_async]), (ACTIONS 2807,
       18, [anon_sym_LBRACE, anon_sym_COMMA, sym_equality_operator, anon_sym_LT_EQ,
       anon_sym_GT_EQ, anon_sym_CARET, anon_sym_LT_LT, anon_sym_GT_GT_GT, sym__additive_operator,
       anon_sym_is, anon_sym_DOT_DOT, anon_sym_QMARK_DOT_DOT, anon_sym_SEMI, anon_sym_EQ_GT,
       anon_sym_async_STAR, anon_sym_sync_STAR, anon_sym_AMP_AMP, anon_sym_PIPE_PIPE])]),
     (77387, 8, [(ACTIONS 3, 1, [anon_sym_SLASH_SLASH]), (ACTIONS 5, 1, [anon_sym_SLASH_STAR]),
       (ACTIONS 7, 1, [anon_sym_SLASH_SLASH_SLASH]), (ACTIONS 9, 1, [sym__block_comment]),
       (ACTIONS 11, 1, [sym__documentation_block_comment]), (STATE 1521, 2, [sym_comment,
       sym_documentation_comment]), (ACTIONS 2644, 8, [anon_sym_QMARK, anon_sym_LT, anon_sym_GT,
       anon_sym_PIPE, anon_sym_AMP, anon_sym_GT_GT, anon_sym_as, anon_sym_async]), (ACTIONS 2642,
       20, [anon_sym_LBRACE, anon_sym_COMMA, anon_sym_QMARK_QMARK, sym_equality_operator,
       anon_sym_LT_EQ, anon_sym_GT_EQ, anon_sym_CARET, anon_sym_LT_LT, anon_sym_GT_GT_GT,
       sym__additive_operator, anon_sym_is, anon_sym_DOT_DOT, anon_sym_QMARK_DOT_DOT,
       anon_sym_SEMI, anon_sym_EQ_GT, anon_sym_async_STAR, anon_sym_sync_STAR, anon_sym_Function,
       anon_sym_AMP_AMP, anon_sym_PIPE_PIPE])]),
     (77439, 8, [(ACTIONS 3, 1, [anon_sym_SLASH_SLASH]), (ACTIONS 5, 1, [anon_sym_SLASH_STAR]),
       (ACTIONS 7, 1, [anon_sym_SLASH_SLASH_SLASH]), (ACTIONS 9, 1, [sym__block_comment]),
       (ACTIONS 11, 1, [sym__documentation_block_comment]), (STATE 1522, 2, [sym_comment,
       sym_documentation_comment]), (ACTIONS 3583, 4, [ts_builtin_sym_end, anon_sym_LPAREN,
       anon_sym_AT, sym_part_of_builtin]), (ACTIONS 3585, 24, [anon_sym_part, anon_sym_enum,
       anon_sym_final, anon_sym_inline, anon_sym_class, anon_sym_extension, sym_void_type,
       anon_sym_var, anon_sym_library, anon_sym_export, anon_sym_Function, anon_sym_get,
       anon_sym_import, anon_sym_interface, anon_sym_base, anon_sym_abstract, anon_sym_sealed,
       anon_sym_mixin, anon_sym_set, anon_sym_typedef, sym_const_builtin, anon_sym_late,
       anon_sym_external, sym_identifier])])]"

lemma small_run_556: "small_run 1520 77333 ts_small_parse_table_556 1523 77491"
  by (simp add: small_simps ts_small_parse_table_556_def)

definition ts_small_parse_table_557 :: "small_group list" where
  "ts_small_parse_table_557 = [
     (77491, 8, [(ACTIONS 3, 1, [anon_sym_SLASH_SLASH]), (ACTIONS 5, 1, [anon_sym_SLASH_STAR]),
       (ACTIONS 7, 1, [anon_sym_SLASH_SLASH_SLASH]), (ACTIONS 9, 1, [sym__block_comment]),
       (ACTIONS 11, 1, [sym__documentation_block_comment]), (STATE 1523, 2, [sym_comment,
       sym_documentation_comment]), (ACTIONS 2684, 8, [anon_sym_QMARK, anon_sym_LT, anon_sym_GT,
       anon_sym_PIPE, anon_sym_AMP, anon_sym_GT_GT, anon_sym_as, anon_sym_async]), (ACTIONS 2682,
       20, [anon_sym_LBRACE, anon_sym_COMMA, anon_sym_QMARK_QMARK, sym_equality_operator,
       anon_sym_LT_EQ, anon_sym_GT_EQ, anon_sym_CARET, anon_sym_LT_LT, anon_sym_GT_GT_GT,
       sym__additive_operator, anon_sym_is, anon_sym_DOT_DOT, anon_sym_QMARK_DOT_DOT,
       anon_sym_SEMI, anon_sym_EQ_GT, anon_sym_async_STAR, anon_sym_sync_STAR, anon_sym_Function,
       anon_sym_AMP_AMP, anon_sym_PIPE_PIPE])]),
     (77543, 10, [(ACTIONS 3, 1, [anon_sym_SLASH_SLASH]), (ACTIONS 5, 1,
       [anon_sym_SLASH_STAR]), (ACTIONS 7, 1, [anon_sym_SLASH_SLASH_SLASH]), (ACTIONS 9, 1,
       [sym__block_comment]), (ACTIONS 11, 1, [sym__documentation_block_comment]), (ACTIONS 3560,
       1, [anon_sym_QMARK]), (STATE 1583, 1, [sym_nullable_type]), (STATE 1524, 2, [sym_comment,
       sym_documentation_comment]), (ACTIONS 2546, 7, [anon_sym_LT, anon_sym_GT, anon_sym_PIPE,
       anon_sym_AMP, anon_sym_GT_GT, anon_sym_as, anon_sym_async]), (ACTIONS 2541, 19,
       [anon_sym_LBRACE, anon_sym_COMMA, anon_sym_QMARK_QMARK, sym_equality_operator,
       anon_sym_LT_EQ, anon_sym_GT_EQ, anon_sym_CARET, anon_sym_LT_LT, anon_sym_GT_GT_GT,
       sym__additive_operator, anon_sym_is, anon_sym_DOT_DOT, anon_sym_QMARK_DOT_DOT,
       anon_sym_SEMI, anon_sym_EQ_GT, anon_sym_async_STAR, anon_sym_sync_STAR, anon_sym_AMP_AMP,
       anon_sym_PIPE_PIPE])]),
     (77599, 9, [(ACTIONS 3, 1, [anon_sym_SLASH_SLASH]), (ACTIONS 5, 1, [anon_sym_SLASH_STAR]),
       (ACTIONS 7, 1, [anon_sym_SLASH_SLASH_SLASH]), (ACTIONS 9, 1, [sym__block_comment]),
       (ACTIONS 11, 1, [sym__documentation_block_comment]), (ACTIONS 3587, 1, [anon_sym_PIPE]),
       (STATE 1525, 3, [sym_comment, sym_documentation_comment,
       aux_sym_bitwise_or_expression_repeat1]), (ACTIONS 1420, 7, [anon_sym_QMARK, anon_sym_LT,
       anon_sym_GT, anon_sym_AMP, anon_sym_GT_GT, anon_sym_as, anon_sym_async]), (ACTIONS 1418,
       19, [anon_sym_LBRACE, anon_sym_COMMA, anon_sym_QMARK_QMARK, sym_equality_operator,
       anon_sym_LT_EQ, anon_sym_GT_EQ, anon_sym_CARET, anon_sym_LT_LT, anon_sym_GT_GT_GT,
       sym__additive_operator, anon_sym_is, anon_sym_DOT_DOT, anon_sym_QMARK_DOT_DOT,
       anon_sym_SEMI, anon_sym_EQ_GT, anon_sym_async_STAR, anon_sym_sync_STAR, anon_sym_AMP_AMP,
       anon_sym_PIPE_PIPE])])]"

lemma small_run_557: "small_run 1523 77491 ts_small_parse_table_557 1526 77653"
  by (simp add: small_simps ts_small_parse_table_557_def)

definition ts_small_parse_table_558 :: "small_group list" where
  "ts_small_parse_table_558 = [
     (77653, 9, [(ACTIONS 3, 1, [anon_sym_SLASH_SLASH]), (ACTIONS 5, 1, [anon_sym_SLASH_STAR]),
       (ACTIONS 7, 1, [anon_sym_SLASH_SLASH_SLASH]), (ACTIONS 9, 1, [sym__block_comment]),
       (ACTIONS 11, 1, [sym__documentation_block_comment]), (ACTIONS 3590, 1, [anon_sym_CARET]),
       (STATE 1526, 3, [sym_comment, sym_documentation_comment,
       aux_sym_bitwise_xor_expression_repeat1]), (ACTIONS 1397, 8, [anon_sym_QMARK, anon_sym_LT,
       anon_sym_GT, anon_sym_PIPE, anon_sym_AMP, anon_sym_GT_GT, anon_sym_as, anon_sym_async]),
       (ACTIONS 1395, 18, [anon_sym_LBRACE, anon_sym_COMMA, anon_sym_QMARK_QMARK,
       sym_equality_operator, anon_sym_LT_EQ, anon_sym_GT_EQ, anon_sym_LT_LT, anon_sym_GT_GT_GT,
       sym__additive_operator, anon_sym_is, anon_sym_DOT_DOT, anon_sym_QMARK_DOT_DOT,
       anon_sym_SEMI, anon_sym_EQ_GT, anon_sym_async_STAR, anon_sym_sync_STAR, anon_sym_AMP_AMP,
       anon_sym_PIPE_PIPE])]),
     (77707, 9, [(ACTIONS 3, 1, [anon_sym_SLASH_SLASH]), (ACTIONS 5, 1, [anon_sym_SLASH_STAR]),
       (ACTIONS 7, 1, [anon_sym_SLASH_SLASH_SLASH]), (ACTIONS 9, 1, [sym__block_comment]),
       (ACTIONS 11, 1, [sym__documentation_block_comment]), (ACTIONS 3593, 1, [anon_sym_AMP]),
       (STATE 1527, 3, [sym_comment, sym_documentation_comment,
       aux_sym_bitwise_and_expression_repeat1]), (ACTIONS 1408, 7, [anon_sym_QMARK, anon_sym_LT,
       anon_sym_GT, anon_sym_PIPE, anon_sym_GT_GT, anon_sym_as, anon_sym_async]), (ACTIONS 1406,
       19, [anon_sym_LBRACE, anon_sym_COMMA, anon_sym_QMARK_QMARK, sym_equality_operator,
       anon_sym_LT_EQ, anon_sym_GT_EQ, anon_sym_CARET, anon_sym_LT_LT, anon_sym_GT_GT_GT,
       sym__additive_operator, anon_sym_is, anon_sym_DOT_DOT, anon_sym_QMARK_DOT_DOT,
       anon_sym_SEMI, anon_sym_EQ_GT, anon_sym_async_STAR, anon_sym_sync_STAR, anon_sym_AMP_AMP,
       anon_sym_PIPE_PIPE])]),
     (77761, 8, [(ACTIONS 3, 1, [anon_sym_SLASH_SLASH]), (ACTIONS 5, 1, [anon_sym_SLASH_STAR]),
       (ACTIONS 7, 1, [anon_sym_SLASH_SLASH_SLASH]), (ACTIONS 9, 1, [sym__block_comment]),
       (ACTIONS 11, 1, [sym__documentation_block_comment]), (STATE 1528, 2, [sym_comment,
       sym_documentation_comment]), (ACTIONS 2572, 8, [anon_sym_QMARK, anon_sym_LT, anon_sym_GT,
       anon_sym_PIPE, anon_sym_AMP, anon_sym_GT_GT, anon_sym_as, anon_sym_async]), (ACTIONS 2567,
       20, [anon_sym_LBRACE, anon_sym_COMMA, anon_sym_QMARK_QMARK, sym_equality_operator,
       anon_sym_LT_EQ, anon_sym_GT_EQ, anon_sym_CARET, anon_sym_LT_LT, anon_sym_GT_GT_GT,
       sym__additive_operator, anon_sym_is, anon_sym_DOT_DOT, anon_sym_QMARK_DOT_DOT,
       anon_sym_SEMI, anon_sym_EQ_GT, anon_sym_async_STAR, anon_sym_sync_STAR, anon_sym_Function,
       anon_sym_AMP_AMP, anon_sym_PIPE_PIPE])])]"

lemma small_run_558: "small_run 1526 77653 ts_small_parse_table_558 1529 77813"
  by (simp add: small_simps ts_small_parse_table_558_def)

definition ts_small_parse_table_559 :: "small_group list" where
  "ts_small_parse_table_559 = [
     (77813, 9, [(ACTIONS 3, 1, [anon_sym_SLASH_SLASH]), (ACTIONS 5, 1, [anon_sym_SLASH_STAR]),
       (ACTIONS 7, 1, [anon_sym_SLASH_SLASH_SLASH]), (ACTIONS 9, 1, [sym__block_comment]),
       (ACTIONS 11, 1, [sym__documentation_block_comment]), (STATE 1520, 1,
       [aux_sym__if_null_expression]), (STATE 1529, 2, [sym_comment, sym_documentation_comment]),
       (ACTIONS 2751, 8, [anon_sym_QMARK, anon_sym_LT, anon_sym_GT, anon_sym_PIPE, anon_sym_AMP,
       anon_sym_GT_GT, anon_sym_as, anon_sym_async]), (ACTIONS 2749, 19, [anon_sym_LBRACE,
       anon_sym_COMMA, anon_sym_QMARK_QMARK, sym_equality_operator, anon_sym_LT_EQ,
       anon_sym_GT_EQ, anon_sym_CARET, anon_sym_LT_LT, anon_sym_GT_GT_GT, sym__additive_operator,
       anon_sym_is, anon_sym_DOT_DOT, anon_sym_QMARK_DOT_DOT, anon_sym_SEMI, anon_sym_EQ_GT,
       anon_sym_async_STAR, anon_sym_sync_STAR, anon_sym_AMP_AMP, anon_sym_PIPE_PIPE])]),
     (77867, 12, [(ACTIONS 3, 1, [anon_sym_SLASH_SLASH]), (ACTIONS 5, 1,
       [anon_sym_SLASH_STAR]), (ACTIONS 7, 1, [anon_sym_SLASH_SLASH_SLASH]), (ACTIONS 9, 1,
       [sym__block_comment]), (ACTIONS 11, 1, [sym__documentation_block_comment]), (ACTIONS 2154,
       1, [anon_sym_QMARK]), (ACTIONS 3161, 1, [anon_sym_LT]), (STATE 1664, 1,
       [sym_type_arguments]), (STATE 1718, 1, [sym_nullable_type]), (STATE 1530, 2, [sym_comment,
       sym_documentation_comment]), (ACTIONS 2539, 11, [anon_sym_when, anon_sym_catch,
       anon_sym_with, anon_sym_Function, anon_sym_get, anon_sym_implements, anon_sym_operator,
       anon_sym_set, anon_sym_this, anon_sym_super, sym_identifier]), (ACTIONS 2531, 13,
       [anon_sym_LBRACE, anon_sym_RBRACE, anon_sym_COMMA, anon_sym_RBRACK, anon_sym_COLON,
       anon_sym_LPAREN, anon_sym_RPAREN, anon_sym_GT, anon_sym_DOT, anon_sym_SEMI,
       anon_sym_EQ_GT, anon_sym_AMP_AMP, anon_sym_PIPE_PIPE])]),
     (77927, 8, [(ACTIONS 3, 1, [anon_sym_SLASH_SLASH]), (ACTIONS 5, 1, [anon_sym_SLASH_STAR]),
       (ACTIONS 7, 1, [anon_sym_SLASH_SLASH_SLASH]), (ACTIONS 9, 1, [sym__block_comment]),
       (ACTIONS 11, 1, [sym__documentation_block_comment]), (STATE 1531, 2, [sym_comment,
       sym_documentation_comment]), (ACTIONS 2801, 8, [anon_sym_QMARK, anon_sym_LT, anon_sym_GT,
       anon_sym_PIPE, anon_sym_AMP, anon_sym_GT_GT, anon_sym_as, anon_sym_async]), (ACTIONS 2799,
       20, [anon_sym_LBRACE, anon_sym_COMMA, anon_sym_QMARK_QMARK, sym_equality_operator,
       anon_sym_LT_EQ, anon_sym_GT_EQ, anon_sym_CARET, anon_sym_LT_LT, anon_sym_GT_GT_GT,
       sym__additive_operator, anon_sym_is, anon_sym_DOT_DOT, anon_sym_QMARK_DOT_DOT,
       anon_sym_SEMI, anon_sym_EQ_GT, anon_sym_async_STAR, anon_sym_sync_STAR, anon_sym_Function,
       anon_sym_AMP_AMP, anon_sym_PIPE_PIPE])])]"

lemma small_run_559: "small_run 1529 77813 ts_small_parse_table_559 1532 77979"
  by (simp add: small_simps ts_small_parse_table_559_def)

definition ts_small_parse_table_560 :: "small_group list" where
  "ts_small_parse_table_560 = [
     (77979, 8, [(ACTIONS 3, 1, [anon_sym_SLASH_SLASH]), (ACTIONS 5, 1, [anon_sym_SLASH_STAR]),
       (ACTIONS 7, 1, [anon_sym_SLASH_SLASH_SLASH]), (ACTIONS 9, 1, [sym__block_comment]),
       (ACTIONS 11, 1, [sym__documentation_block_comment]), (STATE 1532, 2, [sym_comment,
       sym_documentation_comment]), (ACTIONS 2778, 8, [anon_sym_QMARK, anon_sym_LT, anon_sym_GT,
       anon_sym_PIPE, anon_sym_AMP, anon_sym_GT_GT, anon_sym_as, anon_sym_async]), (ACTIONS 2776,
       20, [anon_sym_LBRACE, anon_sym_COMMA, anon_sym_QMARK_QMARK, sym_equality_operator,
       anon_sym_LT_EQ, anon_sym_GT_EQ, anon_sym_CARET, anon_sym_LT_LT, anon_sym_GT_GT_GT,
       sym__additive_operator, anon_sym_is, anon_sym_DOT_DOT, anon_sym_QMARK_DOT_DOT,
       anon_sym_SEMI, anon_sym_EQ_GT, anon_sym_async_STAR, anon_sym_sync_STAR, anon_sym_Function,
       anon_sym_AMP_AMP, anon_sym_PIPE_PIPE])]),
     (78031, 9, [(ACTIONS 3, 1, [anon_sym_SLASH_SLASH]), (ACTIONS 5, 1, [anon_sym_SLASH_STAR]),
       (ACTIONS 7, 1, [anon_sym_SLASH_SLASH_SLASH]), (ACTIONS 9, 1, [sym__block_comment]),
       (ACTIONS 11, 1, [sym__documentation_block_comment]), (ACTIONS 2548, 1,
       [anon_sym_Function]), (STATE 1533, 2, [sym_comment, sym_documentation_comment]), (ACTIONS
       2546, 8, [anon_sym_QMARK, anon_sym_LT, anon_sym_GT, anon_sym_PIPE, anon_sym_AMP,
       anon_sym_GT_GT, anon_sym_as, anon_sym_async]), (ACTIONS 2541, 19, [anon_sym_LBRACE,
       anon_sym_COMMA, anon_sym_QMARK_QMARK, sym_equality_operator, anon_sym_LT_EQ,
       anon_sym_GT_EQ, anon_sym_CARET, anon_sym_LT_LT, anon_sym_GT_GT_GT, sym__additive_operator,
       anon_sym_is, anon_sym_DOT_DOT, anon_sym_QMARK_DOT_DOT, anon_sym_SEMI, anon_sym_EQ_GT,
       anon_sym_async_STAR, anon_sym_sync_STAR, anon_sym_AMP_AMP, anon_sym_PIPE_PIPE])]),
     (78085, 8, [(ACTIONS 3, 1, [anon_sym_SLASH_SLASH]), (ACTIONS 5, 1, [anon_sym_SLASH_STAR]),
       (ACTIONS 7, 1, [anon_sym_SLASH_SLASH_SLASH]), (ACTIONS 9, 1, [sym__block_comment]),
       (ACTIONS 11, 1, [sym__documentation_block_comment]), (STATE 1534, 2, [sym_comment,
       sym_documentation_comment]), (ACTIONS 2735, 8, [anon_sym_QMARK, anon_sym_LT, anon_sym_GT,
       anon_sym_PIPE, anon_sym_AMP, anon_sym_GT_GT, anon_sym_as, anon_sym_async]), (ACTIONS 2733,
       20, [anon_sym_LBRACE, anon_sym_COMMA, anon_sym_QMARK_QMARK, sym_equality_operator,
       anon_sym_LT_EQ, anon_sym_GT_EQ, anon_sym_CARET, anon_sym_LT_LT, anon_sym_GT_GT_GT,
       sym__additive_operator, anon_sym_is, anon_sym_DOT_DOT, anon_sym_QMARK_DOT_DOT,
       anon_sym_SEMI, anon_sym_EQ_GT, anon_sym_async_STAR, anon_sym_sync_STAR, anon_sym_Function,
       anon_sym_AMP_AMP, anon_sym_PIPE_PIPE])])]"

lemma small_run_560: "small_run 1532 77979 ts_small_parse_table_560 1535 78137"
  by (simp add: small_simps ts_small_parse_table_560_def)

definition ts_small_parse_table_561 :: "small_group list" where
  "ts_small_parse_table_561 = [
     (78137, 11, [(ACTIONS 3, 1, [anon_sym_SLASH_SLASH]), (ACTIONS 5, 1,
       [anon_sym_SLASH_STAR]), (ACTIONS 7, 1, [anon_sym_SLASH_SLASH_SLASH]), (ACTIONS 9, 1,
       [sym__block_comment]), (ACTIONS 11, 1, [sym__documentation_block_comment]), (STATE 356, 1,
       [sym_shift_operator]), (STATE 1397, 1, [sym__shift_operator]), (STATE 1553, 1,
       [aux_sym_shift_expression_repeat1]), (STATE 1535, 2, [sym_comment,
       sym_documentation_comment]), (ACTIONS 2495, 6, [anon_sym_QMARK, anon_sym_LT, anon_sym_GT,
       anon_sym_PIPE, anon_sym_AMP, anon_sym_GT_GT]), (ACTIONS 2493, 19, [anon_sym_RBRACE,
       anon_sym_COMMA, anon_sym_RBRACK, anon_sym_COLON, anon_sym_RPAREN, anon_sym_QMARK_QMARK,
       sym_equality_operator, anon_sym_LT_EQ, anon_sym_GT_EQ, anon_sym_CARET, anon_sym_LT_LT,
       anon_sym_GT_GT_GT, sym__additive_operator, anon_sym_is, anon_sym_as, anon_sym_EQ_GT,
       anon_sym_when, anon_sym_AMP_AMP, anon_sym_PIPE_PIPE])]),
     (78195, 10, [(ACTIONS 3, 1, [anon_sym_SLASH_SLASH]), (ACTIONS 5, 1,
       [anon_sym_SLASH_STAR]), (ACTIONS 7, 1, [anon_sym_SLASH_SLASH_SLASH]), (ACTIONS 9, 1,
       [sym__block_comment]), (ACTIONS 11, 1, [sym__documentation_block_comment]), (ACTIONS 3596,
       1, [anon_sym_DOT]), (STATE 1645, 1, [sym__type_dot_identifier]), (STATE 1536, 2,
       [sym_comment, sym_documentation_comment]), (ACTIONS 1320, 6, [anon_sym_QMARK, anon_sym_LT,
       anon_sym_GT, anon_sym_PIPE, anon_sym_AMP, anon_sym_GT_GT]), (ACTIONS 2015, 20,
       [anon_sym_RBRACE, anon_sym_COMMA, anon_sym_RBRACK, anon_sym_COLON, anon_sym_RPAREN,
       anon_sym_QMARK_QMARK, sym_equality_operator, anon_sym_LT_EQ, anon_sym_GT_EQ,
       anon_sym_CARET, anon_sym_LT_LT, anon_sym_GT_GT_GT, sym__additive_operator, anon_sym_is,
       anon_sym_as, anon_sym_EQ_GT, anon_sym_when, anon_sym_Function, anon_sym_AMP_AMP,
       anon_sym_PIPE_PIPE])])]"

lemma small_run_561: "small_run 1535 78137 ts_small_parse_table_561 1537 78251"
  by (simp add: small_simps ts_small_parse_table_561_def)

definition ts_small_parse_table_562 :: "small_group list" where
  "ts_small_parse_table_562 = [
     (78251, 22, [(ACTIONS 3, 1, [anon_sym_SLASH_SLASH]), (ACTIONS 5, 1,
       [anon_sym_SLASH_STAR]), (ACTIONS 7, 1, [anon_sym_SLASH_SLASH_SLASH]), (ACTIONS 9, 1,
       [sym__block_comment]), (ACTIONS 11, 1, [sym__documentation_block_comment]), (ACTIONS 1273,
       1, [anon_sym_GT_GT]), (ACTIONS 1275, 1, [sym__additive_operator]), (ACTIONS 2477, 1,
       [anon_sym_SLASH]), (ACTIONS 3570, 1, [anon_sym_EQ_EQ]), (ACTIONS 3600, 1,
       [anon_sym_LBRACK_RBRACK_EQ]), (STATE 1397, 1, [sym__shift_operator]), (STATE 1416, 1,
       [sym__multiplicative_operator]), (STATE 2731, 1, [sym_binary_operator]), (STATE 3346, 1,
       [sym__bitwise_operator]), (ACTIONS 400, 2, [anon_sym_LT, anon_sym_GT]), (ACTIONS 402, 2,
       [anon_sym_LT_EQ, anon_sym_GT_EQ]), (ACTIONS 1271, 2, [anon_sym_LT_LT, anon_sym_GT_GT_GT]),
       (ACTIONS 3598, 2, [anon_sym_TILDE, anon_sym_LBRACK_RBRACK]), (STATE 1537, 2, [sym_comment,
       sym_documentation_comment]), (ACTIONS 2475, 3, [anon_sym_STAR, anon_sym_PERCENT,
       anon_sym_TILDE_SLASH]), (ACTIONS 3566, 3, [anon_sym_PIPE, anon_sym_CARET, anon_sym_AMP]),
       (STATE 3345, 5, [sym_relational_operator, sym_bitwise_operator, sym_shift_operator,
       sym_additive_operator, sym_multiplicative_operator])]),
     (78331, 33, [(ACTIONS 3, 1, [anon_sym_SLASH_SLASH]), (ACTIONS 5, 1,
       [anon_sym_SLASH_STAR]), (ACTIONS 7, 1, [anon_sym_SLASH_SLASH_SLASH]), (ACTIONS 9, 1,
       [sym__block_comment]), (ACTIONS 11, 1, [sym__documentation_block_comment]), (ACTIONS 15,
       1, [sym_identifier]), (ACTIONS 17, 1, [anon_sym_LPAREN]), (ACTIONS 33, 1,
       [sym_void_type]), (ACTIONS 35, 1, [anon_sym_var]), (ACTIONS 45, 1, [anon_sym_Function]),
       (ACTIONS 47, 1, [anon_sym_get]), (ACTIONS 61, 1, [anon_sym_set]), (ACTIONS 67, 1,
       [anon_sym_late]), (ACTIONS 145, 1, [anon_sym_final]), (ACTIONS 3602, 1,
       [sym_const_builtin]), (STATE 1463, 1, [sym__function_builtin_identifier]), (STATE 1530, 1,
       [sym__type_name]), (STATE 1605, 1, [aux_sym__function_type_tails]), (STATE 1704, 1,
       [sym__function_type_tail]), (STATE 1796, 1, [sym__type_not_function]), (STATE 1805, 1,
       [sym_record_type]), (STATE 1848, 1, [sym_function_type]), (STATE 1896, 1,
       [sym__type_not_void_not_function]), (STATE 1930, 1, [sym__late_builtin]), (STATE 1987, 1,
       [sym__final_or_const]), (STATE 2357, 1, [sym__type]), (STATE 2377, 1, [sym__set]), (STATE
       2411, 1, [sym__get]), (STATE 2568, 1, [sym_setter_signature]), (STATE 2616, 1,
       [sym_final_builtin]), (STATE 2799, 1, [sym_inferred_type]), (STATE 1538, 2, [sym_comment,
       sym_documentation_comment]), (STATE 2521, 2, [sym_getter_signature,
       sym_function_signature])])]"

lemma small_run_562: "small_run 1537 78251 ts_small_parse_table_562 1539 78433"
  by (simp add: small_simps ts_small_parse_table_562_def)

definition ts_small_parse_table_563 :: "small_group list" where
  "ts_small_parse_table_563 = [
     (78433, 8, [(ACTIONS 3, 1, [anon_sym_SLASH_SLASH]), (ACTIONS 5, 1, [anon_sym_SLASH_STAR]),
       (ACTIONS 7, 1, [anon_sym_SLASH_SLASH_SLASH]), (ACTIONS 9, 1, [sym__block_comment]),
       (ACTIONS 11, 1, [sym__documentation_block_comment]), (STATE 1539, 2, [sym_comment,
       sym_documentation_comment]), (ACTIONS 2555, 8, [anon_sym_QMARK, anon_sym_LT, anon_sym_GT,
       anon_sym_PIPE, anon_sym_AMP, anon_sym_GT_GT, anon_sym_as, anon_sym_async]), (ACTIONS 2550,
       20, [anon_sym_LBRACE, anon_sym_COMMA, anon_sym_QMARK_QMARK, sym_equality_operator,
       anon_sym_LT_EQ, anon_sym_GT_EQ, anon_sym_CARET, anon_sym_LT_LT, anon_sym_GT_GT_GT,
       sym__additive_operator, anon_sym_is, anon_sym_DOT_DOT, anon_sym_QMARK_DOT_DOT,
       anon_sym_SEMI, anon_sym_EQ_GT, anon_sym_async_STAR, anon_sym_sync_STAR, anon_sym_Function,
       anon_sym_AMP_AMP, anon_sym_PIPE_PIPE])]),
     (78485, 8, [(ACTIONS 3, 1, [anon_sym_SLASH_SLASH]), (ACTIONS 5, 1, [anon_sym_SLASH_STAR]),
       (ACTIONS 7, 1, [anon_sym_SLASH_SLASH_SLASH]), (ACTIONS 9, 1, [sym__block_comment]),
       (ACTIONS 11, 1, [sym__documentation_block_comment]), (STATE 1540, 2, [sym_comment,
       sym_documentation_comment]), (ACTIONS 2782, 8, [anon_sym_QMARK, anon_sym_LT, anon_sym_GT,
       anon_sym_PIPE, anon_sym_AMP, anon_sym_GT_GT, anon_sym_as, anon_sym_async]), (ACTIONS 2780,
       20, [anon_sym_LBRACE, anon_sym_COMMA, anon_sym_QMARK_QMARK, sym_equality_operator,
       anon_sym_LT_EQ, anon_sym_GT_EQ, anon_sym_CARET, anon_sym_LT_LT, anon_sym_GT_GT_GT,
       sym__additive_operator, anon_sym_is, anon_sym_DOT_DOT, anon_sym_QMARK_DOT_DOT,
       anon_sym_SEMI, anon_sym_EQ_GT, anon_sym_async_STAR, anon_sym_sync_STAR, anon_sym_Function,
       anon_sym_AMP_AMP, anon_sym_PIPE_PIPE])]),
     (78537, 8, [(ACTIONS 3, 1, [anon_sym_SLASH_SLASH]), (ACTIONS 5, 1, [anon_sym_SLASH_STAR]),
       (ACTIONS 7, 1, [anon_sym_SLASH_SLASH_SLASH]), (ACTIONS 9, 1, [sym__block_comment]),
       (ACTIONS 11, 1, [sym__documentation_block_comment]), (STATE 1541, 2, [sym_comment,
       sym_documentation_comment]), (ACTIONS 2487, 8, [anon_sym_QMARK, anon_sym_LT, anon_sym_GT,
       anon_sym_PIPE, anon_sym_AMP, anon_sym_GT_GT, anon_sym_as, anon_sym_async]), (ACTIONS 2479,
       20, [anon_sym_LBRACE, anon_sym_COMMA, anon_sym_QMARK_QMARK, sym_equality_operator,
       anon_sym_LT_EQ, anon_sym_GT_EQ, anon_sym_CARET, anon_sym_LT_LT, anon_sym_GT_GT_GT,
       sym__additive_operator, anon_sym_is, anon_sym_DOT_DOT, anon_sym_QMARK_DOT_DOT,
       anon_sym_SEMI, anon_sym_EQ_GT, anon_sym_async_STAR, anon_sym_sync_STAR, anon_sym_Function,
       anon_sym_AMP_AMP, anon_sym_PIPE_PIPE])])]"

lemma small_run_563: "small_run 1539 78433 ts_small_parse_table_563 1542 78589"
  by (simp add: small_simps ts_small_parse_table_563_def)

definition ts_small_parse_table_564 :: "small_group list" where
  "ts_small_parse_table_564 = [
     (78589, 22, [(ACTIONS 3, 1, [anon_sym_SLASH_SLASH]), (ACTIONS 5, 1,
       [anon_sym_SLASH_STAR]), (ACTIONS 7, 1, [anon_sym_SLASH_SLASH_SLASH]), (ACTIONS 9, 1,
       [sym__block_comment]), (ACTIONS 11, 1, [sym__documentation_block_comment]), (ACTIONS 1273,
       1, [anon_sym_GT_GT]), (ACTIONS 1275, 1, [sym__additive_operator]), (ACTIONS 2477, 1,
       [anon_sym_SLASH]), (ACTIONS 3570, 1, [anon_sym_EQ_EQ]), (ACTIONS 3606, 1,
       [anon_sym_LBRACK_RBRACK_EQ]), (STATE 1397, 1, [sym__shift_operator]), (STATE 1416, 1,
       [sym__multiplicative_operator]), (STATE 2807, 1, [sym_binary_operator]), (STATE 3346, 1,
       [sym__bitwise_operator]), (ACTIONS 400, 2, [anon_sym_LT, anon_sym_GT]), (ACTIONS 402, 2,
       [anon_sym_LT_EQ, anon_sym_GT_EQ]), (ACTIONS 1271, 2, [anon_sym_LT_LT, anon_sym_GT_GT_GT]),
       (ACTIONS 3604, 2, [anon_sym_TILDE, anon_sym_LBRACK_RBRACK]), (STATE 1542, 2, [sym_comment,
       sym_documentation_comment]), (ACTIONS 2475, 3, [anon_sym_STAR, anon_sym_PERCENT,
       anon_sym_TILDE_SLASH]), (ACTIONS 3566, 3, [anon_sym_PIPE, anon_sym_CARET, anon_sym_AMP]),
       (STATE 3345, 5, [sym_relational_operator, sym_bitwise_operator, sym_shift_operator,
       sym_additive_operator, sym_multiplicative_operator])]),
     (78669, 8, [(ACTIONS 3, 1, [anon_sym_SLASH_SLASH]), (ACTIONS 5, 1, [anon_sym_SLASH_STAR]),
       (ACTIONS 7, 1, [anon_sym_SLASH_SLASH_SLASH]), (ACTIONS 9, 1, [sym__block_comment]),
       (ACTIONS 11, 1, [sym__documentation_block_comment]), (STATE 1543, 2, [sym_comment,
       sym_documentation_comment]), (ACTIONS 2805, 8, [anon_sym_QMARK, anon_sym_LT, anon_sym_GT,
       anon_sym_PIPE, anon_sym_AMP, anon_sym_GT_GT, anon_sym_as, anon_sym_async]), (ACTIONS 2803,
       20, [anon_sym_LBRACE, anon_sym_COMMA, anon_sym_QMARK_QMARK, sym_equality_operator,
       anon_sym_LT_EQ, anon_sym_GT_EQ, anon_sym_CARET, anon_sym_LT_LT, anon_sym_GT_GT_GT,
       sym__additive_operator, anon_sym_is, anon_sym_DOT_DOT, anon_sym_QMARK_DOT_DOT,
       anon_sym_SEMI, anon_sym_EQ_GT, anon_sym_async_STAR, anon_sym_sync_STAR, anon_sym_Function,
       anon_sym_AMP_AMP, anon_sym_PIPE_PIPE])]),
     (78721, 8, [(ACTIONS 3, 1, [anon_sym_SLASH_SLASH]), (ACTIONS 5, 1, [anon_sym_SLASH_STAR]),
       (ACTIONS 7, 1, [anon_sym_SLASH_SLASH_SLASH]), (ACTIONS 9, 1, [sym__block_comment]),
       (ACTIONS 11, 1, [sym__documentation_block_comment]), (STATE 1544, 2, [sym_comment,
       sym_documentation_comment]), (ACTIONS 2702, 8, [anon_sym_QMARK, anon_sym_LT, anon_sym_GT,
       anon_sym_PIPE, anon_sym_AMP, anon_sym_GT_GT, anon_sym_as, anon_sym_async]), (ACTIONS 2700,
       20, [anon_sym_LBRACE, anon_sym_COMMA, anon_sym_QMARK_QMARK, sym_equality_operator,
       anon_sym_LT_EQ, anon_sym_GT_EQ, anon_sym_CARET, anon_sym_LT_LT, anon_sym_GT_GT_GT,
       sym__additive_operator, anon_sym_is, anon_sym_DOT_DOT, anon_sym_QMARK_DOT_DOT,
       anon_sym_SEMI, anon_sym_EQ_GT, anon_sym_async_STAR, anon_sym_sync_STAR, anon_sym_Function,
       anon_sym_AMP_AMP, anon_sym_PIPE_PIPE])])]"

lemma small_run_564: "small_run 1542 78589 ts_small_parse_table_564 1545 78773"
  by (simp add: small_simps ts_small_parse_table_564_def)

definition ts_small_parse_table_565 :: "small_group list" where
  "ts_small_parse_table_565 = [
     (78773, 8, [(ACTIONS 3, 1, [anon_sym_SLASH_SLASH]), (ACTIONS 5, 1, [anon_sym_SLASH_STAR]),
       (ACTIONS 7, 1, [anon_sym_SLASH_SLASH_SLASH]), (ACTIONS 9, 1, [sym__block_comment]),
       (ACTIONS 11, 1, [sym__documentation_block_comment]), (STATE 1545, 2, [sym_comment,
       sym_documentation_comment]), (ACTIONS 2624, 8, [anon_sym_QMARK, anon_sym_LT, anon_sym_GT,
       anon_sym_PIPE, anon_sym_AMP, anon_sym_GT_GT, anon_sym_as, anon_sym_async]), (ACTIONS 2622,
       20, [anon_sym_LBRACE, anon_sym_COMMA, anon_sym_QMARK_QMARK, sym_equality_operator,
       anon_sym_LT_EQ, anon_sym_GT_EQ, anon_sym_CARET, anon_sym_LT_LT, anon_sym_GT_GT_GT,
       sym__additive_operator, anon_sym_is, anon_sym_DOT_DOT, anon_sym_QMARK_DOT_DOT,
       anon_sym_SEMI, anon_sym_EQ_GT, anon_sym_async_STAR, anon_sym_sync_STAR, anon_sym_Function,
       anon_sym_AMP_AMP, anon_sym_PIPE_PIPE])]),
     (78825, 12, [(ACTIONS 3, 1, [anon_sym_SLASH_SLASH]), (ACTIONS 5, 1,
       [anon_sym_SLASH_STAR]), (ACTIONS 7, 1, [anon_sym_SLASH_SLASH_SLASH]), (ACTIONS 9, 1,
       [sym__block_comment]), (ACTIONS 11, 1, [sym__documentation_block_comment]), (ACTIONS 2465,
       1, [anon_sym_GT_GT]), (STATE 339, 1, [sym_shift_operator]), (STATE 1397, 1,
       [sym__shift_operator]), (ACTIONS 2462, 2, [anon_sym_LT_LT, anon_sym_GT_GT_GT]), (STATE
       1546, 3, [sym_comment, sym_documentation_comment, aux_sym_shift_expression_repeat1]),
       (ACTIONS 1359, 8, [anon_sym_QMARK, anon_sym_LT, anon_sym_GT, anon_sym_PIPE, anon_sym_AMP,
       anon_sym_BANG, anon_sym_DOT, anon_sym_QMARK_DOT]), (ACTIONS 1357, 14, [anon_sym_LBRACK,
       anon_sym_LPAREN, anon_sym_QMARK_QMARK, sym_equality_operator, anon_sym_LT_EQ,
       anon_sym_GT_EQ, anon_sym_CARET, sym__additive_operator, anon_sym_is, anon_sym_as,
       anon_sym_DOT_DOT, anon_sym_QMARK_DOT_DOT, anon_sym_AMP_AMP, anon_sym_PIPE_PIPE])]),
     (78885, 8, [(ACTIONS 3, 1, [anon_sym_SLASH_SLASH]), (ACTIONS 5, 1, [anon_sym_SLASH_STAR]),
       (ACTIONS 7, 1, [anon_sym_SLASH_SLASH_SLASH]), (ACTIONS 9, 1, [sym__block_comment]),
       (ACTIONS 11, 1, [sym__documentation_block_comment]), (STATE 1547, 2, [sym_comment,
       sym_documentation_comment]), (ACTIONS 2743, 8, [anon_sym_QMARK, anon_sym_LT, anon_sym_GT,
       anon_sym_PIPE, anon_sym_AMP, anon_sym_GT_GT, anon_sym_as, anon_sym_async]), (ACTIONS 2741,
       20, [anon_sym_LBRACE, anon_sym_COMMA, anon_sym_QMARK_QMARK, sym_equality_operator,
       anon_sym_LT_EQ, anon_sym_GT_EQ, anon_sym_CARET, anon_sym_LT_LT, anon_sym_GT_GT_GT,
       sym__additive_operator, anon_sym_is, anon_sym_DOT_DOT, anon_sym_QMARK_DOT_DOT,
       anon_sym_SEMI, anon_sym_EQ_GT, anon_sym_async_STAR, anon_sym_sync_STAR, anon_sym_Function,
       anon_sym_AMP_AMP, anon_sym_PIPE_PIPE])])]"

lemma small_run_565: "small_run 1545 78773 ts_small_parse_table_565 1548 78937"
  by (simp add: small_simps ts_small_parse_table_565_def)

definition ts_small_parse_table_566 :: "small_group list" where
  "ts_small_parse_table_566 = [
     (78937, 8, [(ACTIONS 3, 1, [anon_sym_SLASH_SLASH]), (ACTIONS 5, 1, [anon_sym_SLASH_STAR]),
       (ACTIONS 7, 1, [anon_sym_SLASH_SLASH_SLASH]), (ACTIONS 9, 1, [sym__block_comment]),
       (ACTIONS 11, 1, [sym__documentation_block_comment]), (STATE 1548, 2, [sym_comment,
       sym_documentation_comment]), (ACTIONS 2688, 8, [anon_sym_QMARK, anon_sym_LT, anon_sym_GT,
       anon_sym_PIPE, anon_sym_AMP, anon_sym_GT_GT, anon_sym_as, anon_sym_async]), (ACTIONS 2686,
       20, [anon_sym_LBRACE, anon_sym_COMMA, anon_sym_QMARK_QMARK, sym_equality_operator,
       anon_sym_LT_EQ, anon_sym_GT_EQ, anon_sym_CARET, anon_sym_LT_LT, anon_sym_GT_GT_GT,
       sym__additive_operator, anon_sym_is, anon_sym_DOT_DOT, anon_sym_QMARK_DOT_DOT,
       anon_sym_SEMI, anon_sym_EQ_GT, anon_sym_async_STAR, anon_sym_sync_STAR, anon_sym_Function,
       anon_sym_AMP_AMP, anon_sym_PIPE_PIPE])]),
     (78989, 8, [(ACTIONS 3, 1, [anon_sym_SLASH_SLASH]), (ACTIONS 5, 1, [anon_sym_SLASH_STAR]),
       (ACTIONS 7, 1, [anon_sym_SLASH_SLASH_SLASH]), (ACTIONS 9, 1, [sym__block_comment]),
       (ACTIONS 11, 1, [sym__documentation_block_comment]), (STATE 1549, 2, [sym_comment,
       sym_documentation_comment]), (ACTIONS 2608, 8, [anon_sym_QMARK, anon_sym_LT, anon_sym_GT,
       anon_sym_PIPE, anon_sym_AMP, anon_sym_GT_GT, anon_sym_as, anon_sym_async]), (ACTIONS 2606,
       20, [anon_sym_LBRACE, anon_sym_COMMA, anon_sym_QMARK_QMARK, sym_equality_operator,
       anon_sym_LT_EQ, anon_sym_GT_EQ, anon_sym_CARET, anon_sym_LT_LT, anon_sym_GT_GT_GT,
       sym__additive_operator, anon_sym_is, anon_sym_DOT_DOT, anon_sym_QMARK_DOT_DOT,
       anon_sym_SEMI, anon_sym_EQ_GT, anon_sym_async_STAR, anon_sym_sync_STAR, anon_sym_Function,
       anon_sym_AMP_AMP, anon_sym_PIPE_PIPE])]),
     (79041, 8, [(ACTIONS 3, 1, [anon_sym_SLASH_SLASH]), (ACTIONS 5, 1, [anon_sym_SLASH_STAR]),
       (ACTIONS 7, 1, [anon_sym_SLASH_SLASH_SLASH]), (ACTIONS 9, 1, [sym__block_comment]),
       (ACTIONS 11, 1, [sym__documentation_block_comment]), (STATE 1550, 2, [sym_comment,
       sym_documentation_comment]), (ACTIONS 2718, 8, [anon_sym_QMARK, anon_sym_LT, anon_sym_GT,
       anon_sym_PIPE, anon_sym_AMP, anon_sym_GT_GT, anon_sym_as, anon_sym_async]), (ACTIONS 2716,
       20, [anon_sym_LBRACE, anon_sym_COMMA, anon_sym_QMARK_QMARK, sym_equality_operator,
       anon_sym_LT_EQ, anon_sym_GT_EQ, anon_sym_CARET, anon_sym_LT_LT, anon_sym_GT_GT_GT,
       sym__additive_operator, anon_sym_is, anon_sym_DOT_DOT, anon_sym_QMARK_DOT_DOT,
       anon_sym_SEMI, anon_sym_EQ_GT, anon_sym_async_STAR, anon_sym_sync_STAR, anon_sym_Function,
       anon_sym_AMP_AMP, anon_sym_PIPE_PIPE])])]"

lemma small_run_566: "small_run 1548 78937 ts_small_parse_table_566 1551 79093"
  by (simp add: small_simps ts_small_parse_table_566_def)

definition ts_small_parse_table_567 :: "small_group list" where
  "ts_small_parse_table_567 = [
     (79093, 8, [(ACTIONS 3, 1, [anon_sym_SLASH_SLASH]), (ACTIONS 5, 1, [anon_sym_SLASH_STAR]),
       (ACTIONS 7, 1, [anon_sym_SLASH_SLASH_SLASH]), (ACTIONS 9, 1, [sym__block_comment]),
       (ACTIONS 11, 1, [sym__documentation_block_comment]), (STATE 1551, 2, [sym_comment,
       sym_documentation_comment]), (ACTIONS 2728, 8, [anon_sym_QMARK, anon_sym_LT, anon_sym_GT,
       anon_sym_PIPE, anon_sym_AMP, anon_sym_GT_GT, anon_sym_as, anon_sym_async]), (ACTIONS 2726,
       20, [anon_sym_LBRACE, anon_sym_COMMA, anon_sym_QMARK_QMARK, sym_equality_operator,
       anon_sym_LT_EQ, anon_sym_GT_EQ, anon_sym_CARET, anon_sym_LT_LT, anon_sym_GT_GT_GT,
       sym__additive_operator, anon_sym_is, anon_sym_DOT_DOT, anon_sym_QMARK_DOT_DOT,
       anon_sym_SEMI, anon_sym_EQ_GT, anon_sym_async_STAR, anon_sym_sync_STAR, anon_sym_Function,
       anon_sym_AMP_AMP, anon_sym_PIPE_PIPE])]),
     (79145, 22, [(ACTIONS 3, 1, [anon_sym_SLASH_SLASH]), (ACTIONS 5, 1,
       [anon_sym_SLASH_STAR]), (ACTIONS 7, 1, [anon_sym_SLASH_SLASH_SLASH]), (ACTIONS 9, 1,
       [sym__block_comment]), (ACTIONS 11, 1, [sym__documentation_block_comment]), (ACTIONS 1273,
       1, [anon_sym_GT_GT]), (ACTIONS 1275, 1, [sym__additive_operator]), (ACTIONS 2477, 1,
       [anon_sym_SLASH]), (ACTIONS 3570, 1, [anon_sym_EQ_EQ]), (ACTIONS 3610, 1,
       [anon_sym_LBRACK_RBRACK_EQ]), (STATE 1397, 1, [sym__shift_operator]), (STATE 1416, 1,
       [sym__multiplicative_operator]), (STATE 2720, 1, [sym_binary_operator]), (STATE 3346, 1,
       [sym__bitwise_operator]), (ACTIONS 400, 2, [anon_sym_LT, anon_sym_GT]), (ACTIONS 402, 2,
       [anon_sym_LT_EQ, anon_sym_GT_EQ]), (ACTIONS 1271, 2, [anon_sym_LT_LT, anon_sym_GT_GT_GT]),
       (ACTIONS 3608, 2, [anon_sym_TILDE, anon_sym_LBRACK_RBRACK]), (STATE 1552, 2, [sym_comment,
       sym_documentation_comment]), (ACTIONS 2475, 3, [anon_sym_STAR, anon_sym_PERCENT,
       anon_sym_TILDE_SLASH]), (ACTIONS 3566, 3, [anon_sym_PIPE, anon_sym_CARET, anon_sym_AMP]),
       (STATE 3345, 5, [sym_relational_operator, sym_bitwise_operator, sym_shift_operator,
       sym_additive_operator, sym_multiplicative_operator])]),
     (79225, 12, [(ACTIONS 3, 1, [anon_sym_SLASH_SLASH]), (ACTIONS 5, 1,
       [anon_sym_SLASH_STAR]), (ACTIONS 7, 1, [anon_sym_SLASH_SLASH_SLASH]), (ACTIONS 9, 1,
       [sym__block_comment]), (ACTIONS 11, 1, [sym__documentation_block_comment]), (ACTIONS 2465,
       1, [anon_sym_GT_GT]), (STATE 356, 1, [sym_shift_operator]), (STATE 1397, 1,
       [sym__shift_operator]), (ACTIONS 2462, 2, [anon_sym_LT_LT, anon_sym_GT_GT_GT]), (STATE
       1553, 3, [sym_comment, sym_documentation_comment, aux_sym_shift_expression_repeat1]),
       (ACTIONS 1359, 5, [anon_sym_QMARK, anon_sym_LT, anon_sym_GT, anon_sym_PIPE,
       anon_sym_AMP]), (ACTIONS 1357, 17, [anon_sym_RBRACE, anon_sym_COMMA, anon_sym_RBRACK,
       anon_sym_COLON, anon_sym_RPAREN, anon_sym_QMARK_QMARK, sym_equality_operator,
       anon_sym_LT_EQ, anon_sym_GT_EQ, anon_sym_CARET, sym__additive_operator, anon_sym_is,
       anon_sym_as, anon_sym_EQ_GT, anon_sym_when, anon_sym_AMP_AMP, anon_sym_PIPE_PIPE])])]"

lemma small_run_567: "small_run 1551 79093 ts_small_parse_table_567 1554 79285"
  by (simp add: small_simps ts_small_parse_table_567_def)

definition ts_small_parse_table_568 :: "small_group list" where
  "ts_small_parse_table_568 = [
     (79285, 10, [(ACTIONS 3, 1, [anon_sym_SLASH_SLASH]), (ACTIONS 5, 1,
       [anon_sym_SLASH_STAR]), (ACTIONS 7, 1, [anon_sym_SLASH_SLASH_SLASH]), (ACTIONS 9, 1,
       [sym__block_comment]), (ACTIONS 11, 1, [sym__documentation_block_comment]), (STATE 309, 1,
       [sym_logical_and_operator]), (STATE 1568, 1, [aux_sym_logical_and_expression_repeat1]),
       (STATE 1554, 2, [sym_comment, sym_documentation_comment]), (ACTIONS 2604, 6,
       [anon_sym_QMARK, anon_sym_LT, anon_sym_GT, anon_sym_PIPE, anon_sym_AMP, anon_sym_GT_GT]),
       (ACTIONS 2602, 19, [anon_sym_RBRACE, anon_sym_COMMA, anon_sym_RBRACK, anon_sym_COLON,
       anon_sym_RPAREN, anon_sym_QMARK_QMARK, sym_equality_operator, anon_sym_LT_EQ,
       anon_sym_GT_EQ, anon_sym_CARET, anon_sym_LT_LT, anon_sym_GT_GT_GT, sym__additive_operator,
       anon_sym_is, anon_sym_as, anon_sym_EQ_GT, anon_sym_when, anon_sym_AMP_AMP,
       anon_sym_PIPE_PIPE])]),
     (79340, 8, [(ACTIONS 3, 1, [anon_sym_SLASH_SLASH]), (ACTIONS 5, 1, [anon_sym_SLASH_STAR]),
       (ACTIONS 7, 1, [anon_sym_SLASH_SLASH_SLASH]), (ACTIONS 9, 1, [sym__block_comment]),
       (ACTIONS 11, 1, [sym__documentation_block_comment]), (STATE 1555, 2, [sym_comment,
       sym_documentation_comment]), (ACTIONS 3612, 4, [ts_builtin_sym_end, anon_sym_LPAREN,
       anon_sym_AT, sym_part_of_builtin]), (ACTIONS 3614, 23, [anon_sym_part, anon_sym_enum,
       anon_sym_final, anon_sym_inline, anon_sym_class, anon_sym_extension, sym_void_type,
       anon_sym_var, anon_sym_export, anon_sym_Function, anon_sym_get, anon_sym_import,
       anon_sym_interface, anon_sym_base, anon_sym_abstract, anon_sym_sealed, anon_sym_mixin,
       anon_sym_set, anon_sym_typedef, sym_const_builtin, anon_sym_late, anon_sym_external,
       sym_identifier])]),
     (79391, 8, [(ACTIONS 3, 1, [anon_sym_SLASH_SLASH]), (ACTIONS 5, 1, [anon_sym_SLASH_STAR]),
       (ACTIONS 7, 1, [anon_sym_SLASH_SLASH_SLASH]), (ACTIONS 9, 1, [sym__block_comment]),
       (ACTIONS 11, 1, [sym__documentation_block_comment]), (STATE 1556, 2, [sym_comment,
       sym_documentation_comment]), (ACTIONS 2710, 6, [anon_sym_QMARK, anon_sym_LT, anon_sym_GT,
       anon_sym_PIPE, anon_sym_AMP, anon_sym_GT_GT]), (ACTIONS 2708, 21, [anon_sym_RBRACE,
       anon_sym_COMMA, anon_sym_RBRACK, anon_sym_COLON, anon_sym_LPAREN, anon_sym_RPAREN,
       anon_sym_QMARK_QMARK, sym_equality_operator, anon_sym_LT_EQ, anon_sym_GT_EQ,
       anon_sym_CARET, anon_sym_LT_LT, anon_sym_GT_GT_GT, sym__additive_operator, anon_sym_is,
       anon_sym_as, anon_sym_EQ_GT, anon_sym_when, anon_sym_Function, anon_sym_AMP_AMP,
       anon_sym_PIPE_PIPE])])]"

lemma small_run_568: "small_run 1554 79285 ts_small_parse_table_568 1557 79442"
  by (simp add: small_simps ts_small_parse_table_568_def)

definition ts_small_parse_table_569 :: "small_group list" where
  "ts_small_parse_table_569 = [
     (79442, 12, [(ACTIONS 3, 1, [anon_sym_SLASH_SLASH]), (ACTIONS 5, 1,
       [anon_sym_SLASH_STAR]), (ACTIONS 7, 1, [anon_sym_SLASH_SLASH_SLASH]), (ACTIONS 9, 1,
       [sym__block_comment]), (ACTIONS 11, 1, [sym__documentation_block_comment]), (ACTIONS 3506,
       1, [anon_sym_LPAREN]), (ACTIONS 3616, 1, [anon_sym_QMARK]), (STATE 1559, 1,
       [sym_nullable_type]), (STATE 1616, 1, [sym_parameter_type_list]), (STATE 1557, 2,
       [sym_comment, sym_documentation_comment]), (ACTIONS 2515, 11, [anon_sym_when,
       anon_sym_catch, anon_sym_with, anon_sym_Function, anon_sym_get, anon_sym_implements,
       anon_sym_operator, anon_sym_set, anon_sym_this, anon_sym_super, sym_identifier]), (ACTIONS
       2507, 12, [anon_sym_LBRACE, anon_sym_RBRACE, anon_sym_COMMA, anon_sym_RBRACK,
       anon_sym_COLON, anon_sym_RPAREN, anon_sym_GT, anon_sym_DOT, anon_sym_SEMI, anon_sym_EQ_GT,
       anon_sym_AMP_AMP, anon_sym_PIPE_PIPE])]),
     (79501, 8, [(ACTIONS 3, 1, [anon_sym_SLASH_SLASH]), (ACTIONS 5, 1, [anon_sym_SLASH_STAR]),
       (ACTIONS 7, 1, [anon_sym_SLASH_SLASH_SLASH]), (ACTIONS 9, 1, [sym__block_comment]),
       (ACTIONS 11, 1, [sym__documentation_block_comment]), (STATE 1558, 2, [sym_comment,
       sym_documentation_comment]), (ACTIONS 3619, 4, [ts_builtin_sym_end, anon_sym_LPAREN,
       anon_sym_AT, sym_part_of_builtin]), (ACTIONS 3621, 23, [anon_sym_part, anon_sym_enum,
       anon_sym_final, anon_sym_inline, anon_sym_class, anon_sym_extension, sym_void_type,
       anon_sym_var, anon_sym_export, anon_sym_Function, anon_sym_get, anon_sym_import,
       anon_sym_interface, anon_sym_base, anon_sym_abstract, anon_sym_sealed, anon_sym_mixin,
       anon_sym_set, anon_sym_typedef, sym_const_builtin, anon_sym_late, anon_sym_external,
       sym_identifier])]),
     (79552, 12, [(ACTIONS 3, 1, [anon_sym_SLASH_SLASH]), (ACTIONS 5, 1,
       [anon_sym_SLASH_STAR]), (ACTIONS 7, 1, [anon_sym_SLASH_SLASH_SLASH]), (ACTIONS 9, 1,
       [sym__block_comment]), (ACTIONS 11, 1, [sym__documentation_block_comment]), (ACTIONS 3506,
       1, [anon_sym_LPAREN]), (ACTIONS 3623, 1, [anon_sym_QMARK]), (STATE 1639, 1,
       [sym_parameter_type_list]), (STATE 1680, 1, [sym_nullable_type]), (STATE 1559, 2,
       [sym_comment, sym_documentation_comment]), (ACTIONS 2487, 11, [anon_sym_when,
       anon_sym_catch, anon_sym_with, anon_sym_Function, anon_sym_get, anon_sym_implements,
       anon_sym_operator, anon_sym_set, anon_sym_this, anon_sym_super, sym_identifier]), (ACTIONS
       2479, 12, [anon_sym_LBRACE, anon_sym_RBRACE, anon_sym_COMMA, anon_sym_RBRACK,
       anon_sym_COLON, anon_sym_RPAREN, anon_sym_GT, anon_sym_DOT, anon_sym_SEMI, anon_sym_EQ_GT,
       anon_sym_AMP_AMP, anon_sym_PIPE_PIPE])])]"

lemma small_run_569: "small_run 1557 79442 ts_small_parse_table_569 1560 79611"
  by (simp add: small_simps ts_small_parse_table_569_def)

definition ts_small_parse_table_570 :: "small_group list" where
  "ts_small_parse_table_570 = [
     (79611, 8, [(ACTIONS 3, 1, [anon_sym_SLASH_SLASH]), (ACTIONS 5, 1, [anon_sym_SLASH_STAR]),
       (ACTIONS 7, 1, [anon_sym_SLASH_SLASH_SLASH]), (ACTIONS 9, 1, [sym__block_comment]),
       (ACTIONS 11, 1, [sym__documentation_block_comment]), (STATE 1560, 2, [sym_comment,
       sym_documentation_comment]), (ACTIONS 2978, 8, [anon_sym_QMARK, anon_sym_LT, anon_sym_GT,
       anon_sym_PIPE, anon_sym_AMP, anon_sym_GT_GT, anon_sym_as, anon_sym_async]), (ACTIONS 2976,
       19, [anon_sym_LBRACE, anon_sym_COMMA, anon_sym_QMARK_QMARK, sym_equality_operator,
       anon_sym_LT_EQ, anon_sym_GT_EQ, anon_sym_CARET, anon_sym_LT_LT, anon_sym_GT_GT_GT,
       sym__additive_operator, anon_sym_is, anon_sym_DOT_DOT, anon_sym_QMARK_DOT_DOT,
       anon_sym_SEMI, anon_sym_EQ_GT, anon_sym_async_STAR, anon_sym_sync_STAR, anon_sym_AMP_AMP,
       anon_sym_PIPE_PIPE])]),
     (79662, 10, [(ACTIONS 3, 1, [anon_sym_SLASH_SLASH]), (ACTIONS 5, 1,
       [anon_sym_SLASH_STAR]), (ACTIONS 7, 1, [anon_sym_SLASH_SLASH_SLASH]), (ACTIONS 9, 1,
       [sym__block_comment]), (ACTIONS 11, 1, [sym__documentation_block_comment]), (ACTIONS 2564,
       1, [anon_sym_PIPE_PIPE]), (STATE 322, 1, [sym_logical_or_operator]), (STATE 1561, 3,
       [sym_comment, sym_documentation_comment, aux_sym_logical_or_expression_repeat1]), (ACTIONS
       1416, 9, [anon_sym_QMARK, anon_sym_LT, anon_sym_GT, anon_sym_PIPE, anon_sym_AMP,
       anon_sym_GT_GT, anon_sym_BANG, anon_sym_DOT, anon_sym_QMARK_DOT]), (ACTIONS 1414, 15,
       [anon_sym_LBRACK, anon_sym_LPAREN, anon_sym_QMARK_QMARK, sym_equality_operator,
       anon_sym_LT_EQ, anon_sym_GT_EQ, anon_sym_CARET, anon_sym_LT_LT, anon_sym_GT_GT_GT,
       sym__additive_operator, anon_sym_is, anon_sym_as, anon_sym_DOT_DOT,
       anon_sym_QMARK_DOT_DOT, anon_sym_AMP_AMP])]),
     (79717, 10, [(ACTIONS 3, 1, [anon_sym_SLASH_SLASH]), (ACTIONS 5, 1,
       [anon_sym_SLASH_STAR]), (ACTIONS 7, 1, [anon_sym_SLASH_SLASH_SLASH]), (ACTIONS 9, 1,
       [sym__block_comment]), (ACTIONS 11, 1, [sym__documentation_block_comment]), (ACTIONS 2574,
       1, [anon_sym_AMP_AMP]), (STATE 324, 1, [sym_logical_and_operator]), (STATE 1562, 3,
       [sym_comment, sym_documentation_comment, aux_sym_logical_and_expression_repeat1]),
       (ACTIONS 1434, 9, [anon_sym_QMARK, anon_sym_LT, anon_sym_GT, anon_sym_PIPE, anon_sym_AMP,
       anon_sym_GT_GT, anon_sym_BANG, anon_sym_DOT, anon_sym_QMARK_DOT]), (ACTIONS 1432, 15,
       [anon_sym_LBRACK, anon_sym_LPAREN, anon_sym_QMARK_QMARK, sym_equality_operator,
       anon_sym_LT_EQ, anon_sym_GT_EQ, anon_sym_CARET, anon_sym_LT_LT, anon_sym_GT_GT_GT,
       sym__additive_operator, anon_sym_is, anon_sym_as, anon_sym_DOT_DOT,
       anon_sym_QMARK_DOT_DOT, anon_sym_PIPE_PIPE])])]"

lemma small_run_570: "small_run 1560 79611 ts_small_parse_table_570 1563 79772"
  by (simp add: small_simps ts_small_parse_table_570_def)

definition ts_small_parse_table_571 :: "small_group list" where
  "ts_small_parse_table_571 = [
     (79772, 8, [(ACTIONS 3, 1, [anon_sym_SLASH_SLASH]), (ACTIONS 5, 1, [anon_sym_SLASH_STAR]),
       (ACTIONS 7, 1, [anon_sym_SLASH_SLASH_SLASH]), (ACTIONS 9, 1, [sym__block_comment]),
       (ACTIONS 11, 1, [sym__documentation_block_comment]), (STATE 1563, 2, [sym_comment,
       sym_documentation_comment]), (ACTIONS 2974, 8, [anon_sym_QMARK, anon_sym_LT, anon_sym_GT,
       anon_sym_PIPE, anon_sym_AMP, anon_sym_GT_GT, anon_sym_as, anon_sym_async]), (ACTIONS 2972,
       19, [anon_sym_LBRACE, anon_sym_COMMA, anon_sym_QMARK_QMARK, sym_equality_operator,
       anon_sym_LT_EQ, anon_sym_GT_EQ, anon_sym_CARET, anon_sym_LT_LT, anon_sym_GT_GT_GT,
       sym__additive_operator, anon_sym_is, anon_sym_DOT_DOT, anon_sym_QMARK_DOT_DOT,
       anon_sym_SEMI, anon_sym_EQ_GT, anon_sym_async_STAR, anon_sym_sync_STAR, anon_sym_AMP_AMP,
       anon_sym_PIPE_PIPE])]),
     (79823, 8, [(ACTIONS 3, 1, [anon_sym_SLASH_SLASH]), (ACTIONS 5, 1, [anon_sym_SLASH_STAR]),
       (ACTIONS 7, 1, [anon_sym_SLASH_SLASH_SLASH]), (ACTIONS 9, 1, [sym__block_comment]),
       (ACTIONS 11, 1, [sym__documentation_block_comment]), (STATE 1564, 2, [sym_comment,
       sym_documentation_comment]), (ACTIONS 3626, 4, [ts_builtin_sym_end, anon_sym_LPAREN,
       anon_sym_AT, sym_part_of_builtin]), (ACTIONS 3628, 23, [anon_sym_part, anon_sym_enum,
       anon_sym_final, anon_sym_inline, anon_sym_class, anon_sym_extension, sym_void_type,
       anon_sym_var, anon_sym_export, anon_sym_Function, anon_sym_get, anon_sym_import,
       anon_sym_interface, anon_sym_base, anon_sym_abstract, anon_sym_sealed, anon_sym_mixin,
       anon_sym_set, anon_sym_typedef, sym_const_builtin, anon_sym_late, anon_sym_external,
       sym_identifier])]),
     (79874, 11, [(ACTIONS 3, 1, [anon_sym_SLASH_SLASH]), (ACTIONS 5, 1,
       [anon_sym_SLASH_STAR]), (ACTIONS 7, 1, [anon_sym_SLASH_SLASH_SLASH]), (ACTIONS 9, 1,
       [sym__block_comment]), (ACTIONS 11, 1, [sym__documentation_block_comment]), (ACTIONS 3630,
       1, [anon_sym_Function]), (STATE 1498, 1, [sym__function_builtin_identifier]), (STATE 1704,
       1, [sym__function_type_tail]), (STATE 1565, 3, [aux_sym__function_type_tails, sym_comment,
       sym_documentation_comment]), (ACTIONS 2444, 10, [anon_sym_when, anon_sym_catch,
       anon_sym_with, anon_sym_get, anon_sym_implements, anon_sym_operator, anon_sym_set,
       anon_sym_this, anon_sym_super, sym_identifier]), (ACTIONS 2442, 13, [anon_sym_LBRACE,
       anon_sym_RBRACE, anon_sym_COMMA, anon_sym_RBRACK, anon_sym_COLON, anon_sym_RPAREN,
       anon_sym_QMARK, anon_sym_GT, anon_sym_DOT, anon_sym_SEMI, anon_sym_EQ_GT,
       anon_sym_AMP_AMP, anon_sym_PIPE_PIPE])])]"

lemma small_run_571: "small_run 1563 79772 ts_small_parse_table_571 1566 79931"
  by (simp add: small_simps ts_small_parse_table_571_def)

definition ts_small_parse_table_572 :: "small_group list" where
  "ts_small_parse_table_572 = [
     (79931, 8, [(ACTIONS 3, 1, [anon_sym_SLASH_SLASH]), (ACTIONS 5, 1, [anon_sym_SLASH_STAR]),
       (ACTIONS 7, 1, [anon_sym_SLASH_SLASH_SLASH]), (ACTIONS 9, 1, [sym__block_comment]),
       (ACTIONS 11, 1, [sym__documentation_block_comment]), (STATE 1566, 2, [sym_comment,
       sym_documentation_comment]), (ACTIONS 2640, 13, [anon_sym_EQ, anon_sym_extends,
       anon_sym_when, anon_sym_catch, anon_sym_with, anon_sym_Function, anon_sym_get,
       anon_sym_implements, anon_sym_operator, anon_sym_set, anon_sym_this, anon_sym_super,
       sym_identifier]), (ACTIONS 2638, 14, [anon_sym_LBRACE, anon_sym_RBRACE, anon_sym_COMMA,
       anon_sym_RBRACK, anon_sym_COLON, anon_sym_LPAREN, anon_sym_RPAREN, anon_sym_QMARK,
       anon_sym_GT, anon_sym_DOT, anon_sym_SEMI, anon_sym_EQ_GT, anon_sym_AMP_AMP,
       anon_sym_PIPE_PIPE])]),
     (79982, 8, [(ACTIONS 3, 1, [anon_sym_SLASH_SLASH]), (ACTIONS 5, 1, [anon_sym_SLASH_STAR]),
       (ACTIONS 7, 1, [anon_sym_SLASH_SLASH_SLASH]), (ACTIONS 9, 1, [sym__block_comment]),
       (ACTIONS 11, 1, [sym__documentation_block_comment]), (STATE 1567, 2, [sym_comment,
       sym_documentation_comment]), (ACTIONS 3633, 4, [ts_builtin_sym_end, anon_sym_LPAREN,
       anon_sym_AT, sym_part_of_builtin]), (ACTIONS 3635, 23, [anon_sym_part, anon_sym_enum,
       anon_sym_final, anon_sym_inline, anon_sym_class, anon_sym_extension, sym_void_type,
       anon_sym_var, anon_sym_export, anon_sym_Function, anon_sym_get, anon_sym_import,
       anon_sym_interface, anon_sym_base, anon_sym_abstract, anon_sym_sealed, anon_sym_mixin,
       anon_sym_set, anon_sym_typedef, sym_const_builtin, anon_sym_late, anon_sym_external,
       sym_identifier])]),
     (80033, 10, [(ACTIONS 3, 1, [anon_sym_SLASH_SLASH]), (ACTIONS 5, 1,
       [anon_sym_SLASH_STAR]), (ACTIONS 7, 1, [anon_sym_SLASH_SLASH_SLASH]), (ACTIONS 9, 1,
       [sym__block_comment]), (ACTIONS 11, 1, [sym__documentation_block_comment]), (ACTIONS 2574,
       1, [anon_sym_AMP_AMP]), (STATE 309, 1, [sym_logical_and_operator]), (STATE 1568, 3,
       [sym_comment, sym_documentation_comment, aux_sym_logical_and_expression_repeat1]),
       (ACTIONS 1434, 6, [anon_sym_QMARK, anon_sym_LT, anon_sym_GT, anon_sym_PIPE, anon_sym_AMP,
       anon_sym_GT_GT]), (ACTIONS 1432, 18, [anon_sym_RBRACE, anon_sym_COMMA, anon_sym_RBRACK,
       anon_sym_COLON, anon_sym_RPAREN, anon_sym_QMARK_QMARK, sym_equality_operator,
       anon_sym_LT_EQ, anon_sym_GT_EQ, anon_sym_CARET, anon_sym_LT_LT, anon_sym_GT_GT_GT,
       sym__additive_operator, anon_sym_is, anon_sym_as, anon_sym_EQ_GT, anon_sym_when,
       anon_sym_PIPE_PIPE])])]"

lemma small_run_572: "small_run 1566 79931 ts_small_parse_table_572 1569 80088"
  by (simp add: small_simps ts_small_parse_table_572_def)

definition ts_small_parse_table_573 :: "small_group list" where
  "ts_small_parse_table_573 = [
     (80088, 8, [(ACTIONS 3, 1, [anon_sym_SLASH_SLASH]), (ACTIONS 5, 1, [anon_sym_SLASH_STAR]),
       (ACTIONS 7, 1, [anon_sym_SLASH_SLASH_SLASH]), (ACTIONS 9, 1, [sym__block_comment]),
       (ACTIONS 11, 1, [sym__documentation_block_comment]), (STATE 1569, 2, [sym_comment,
       sym_documentation_comment]), (ACTIONS 3637, 4, [ts_builtin_sym_end, anon_sym_LPAREN,
       anon_sym_AT, sym_part_of_builtin]), (ACTIONS 3639, 23, [anon_sym_part, anon_sym_enum,
       anon_sym_final, anon_sym_inline, anon_sym_class, anon_sym_extension, sym_void_type,
       anon_sym_var, anon_sym_export, anon_sym_Function, anon_sym_get, anon_sym_import,
       anon_sym_interface, anon_sym_base, anon_sym_abstract, anon_sym_sealed, anon_sym_mixin,
       anon_sym_set, anon_sym_typedef, sym_const_builtin, anon_sym_late, anon_sym_external,
       sym_identifier])]),
     (80139, 10, [(ACTIONS 3, 1, [anon_sym_SLASH_SLASH]), (ACTIONS 5, 1,
       [anon_sym_SLASH_STAR]), (ACTIONS 7, 1, [anon_sym_SLASH_SLASH_SLASH]), (ACTIONS 9, 1,
       [sym__block_comment]), (ACTIONS 11, 1, [sym__documentation_block_comment]), (STATE 322, 1,
       [sym_logical_or_operator]), (STATE 1561, 1, [aux_sym_logical_or_expression_repeat1]),
       (STATE 1570, 2, [sym_comment, sym_documentation_comment]), (ACTIONS 2600, 9,
       [anon_sym_QMARK, anon_sym_LT, anon_sym_GT, anon_sym_PIPE, anon_sym_AMP, anon_sym_GT_GT,
       anon_sym_BANG, anon_sym_DOT, anon_sym_QMARK_DOT]), (ACTIONS 2598, 16, [anon_sym_LBRACK,
       anon_sym_LPAREN, anon_sym_QMARK_QMARK, sym_equality_operator, anon_sym_LT_EQ,
       anon_sym_GT_EQ, anon_sym_CARET, anon_sym_LT_LT, anon_sym_GT_GT_GT, sym__additive_operator,
       anon_sym_is, anon_sym_as, anon_sym_DOT_DOT, anon_sym_QMARK_DOT_DOT, anon_sym_AMP_AMP,
       anon_sym_PIPE_PIPE])]),
     (80194, 8, [(ACTIONS 3, 1, [anon_sym_SLASH_SLASH]), (ACTIONS 5, 1, [anon_sym_SLASH_STAR]),
       (ACTIONS 7, 1, [anon_sym_SLASH_SLASH_SLASH]), (ACTIONS 9, 1, [sym__block_comment]),
       (ACTIONS 11, 1, [sym__documentation_block_comment]), (STATE 1571, 2, [sym_comment,
       sym_documentation_comment]), (ACTIONS 3384, 3, [anon_sym_LPAREN, anon_sym_AT,
       sym_part_of_builtin]), (ACTIONS 3382, 24, [anon_sym_part, anon_sym_enum, anon_sym_final,
       anon_sym_inline, anon_sym_class, anon_sym_extension, sym_void_type, anon_sym_var,
       anon_sym_library, anon_sym_export, anon_sym_Function, anon_sym_get, anon_sym_import,
       anon_sym_interface, anon_sym_base, anon_sym_abstract, anon_sym_sealed, anon_sym_mixin,
       anon_sym_set, anon_sym_typedef, sym_const_builtin, anon_sym_late, anon_sym_external,
       sym_identifier])])]"

lemma small_run_573: "small_run 1569 80088 ts_small_parse_table_573 1572 80245"
  by (simp add: small_simps ts_small_parse_table_573_def)

definition ts_small_parse_table_574 :: "small_group list" where
  "ts_small_parse_table_574 = [
     (80245, 8, [(ACTIONS 3, 1, [anon_sym_SLASH_SLASH]), (ACTIONS 5, 1, [anon_sym_SLASH_STAR]),
       (ACTIONS 7, 1, [anon_sym_SLASH_SLASH_SLASH]), (ACTIONS 9, 1, [sym__block_comment]),
       (ACTIONS 11, 1, [sym__documentation_block_comment]), (STATE 1572, 2, [sym_comment,
       sym_documentation_comment]), (ACTIONS 3641, 4, [ts_builtin_sym_end, anon_sym_LPAREN,
       anon_sym_AT, sym_part_of_builtin]), (ACTIONS 3643, 23, [anon_sym_part, anon_sym_enum,
       anon_sym_final, anon_sym_inline, anon_sym_class, anon_sym_extension, sym_void_type,
       anon_sym_var, anon_sym_export, anon_sym_Function, anon_sym_get, anon_sym_import,
       anon_sym_interface, anon_sym_base, anon_sym_abstract, anon_sym_sealed, anon_sym_mixin,
       anon_sym_set, anon_sym_typedef, sym_const_builtin, anon_sym_late, anon_sym_external,
       sym_identifier])]),
     (80296, 8, [(ACTIONS 3, 1, [anon_sym_SLASH_SLASH]), (ACTIONS 5, 1, [anon_sym_SLASH_STAR]),
       (ACTIONS 7, 1, [anon_sym_SLASH_SLASH_SLASH]), (ACTIONS 9, 1, [sym__block_comment]),
       (ACTIONS 11, 1, [sym__documentation_block_comment]), (STATE 1573, 2, [sym_comment,
       sym_documentation_comment]), (ACTIONS 1412, 8, [anon_sym_QMARK, anon_sym_LT, anon_sym_GT,
       anon_sym_PIPE, anon_sym_AMP, anon_sym_GT_GT, anon_sym_as, anon_sym_async]), (ACTIONS 1410,
       19, [anon_sym_LBRACE, anon_sym_COMMA, anon_sym_QMARK_QMARK, sym_equality_operator,
       anon_sym_LT_EQ, anon_sym_GT_EQ, anon_sym_CARET, anon_sym_LT_LT, anon_sym_GT_GT_GT,
       sym__additive_operator, anon_sym_is, anon_sym_DOT_DOT, anon_sym_QMARK_DOT_DOT,
       anon_sym_SEMI, anon_sym_EQ_GT, anon_sym_async_STAR, anon_sym_sync_STAR, anon_sym_AMP_AMP,
       anon_sym_PIPE_PIPE])]),
     (80347, 10, [(ACTIONS 3, 1, [anon_sym_SLASH_SLASH]), (ACTIONS 5, 1,
       [anon_sym_SLASH_STAR]), (ACTIONS 7, 1, [anon_sym_SLASH_SLASH_SLASH]), (ACTIONS 9, 1,
       [sym__block_comment]), (ACTIONS 11, 1, [sym__documentation_block_comment]), (STATE 324, 1,
       [sym_logical_and_operator]), (STATE 1562, 1, [aux_sym_logical_and_expression_repeat1]),
       (STATE 1574, 2, [sym_comment, sym_documentation_comment]), (ACTIONS 2604, 9,
       [anon_sym_QMARK, anon_sym_LT, anon_sym_GT, anon_sym_PIPE, anon_sym_AMP, anon_sym_GT_GT,
       anon_sym_BANG, anon_sym_DOT, anon_sym_QMARK_DOT]), (ACTIONS 2602, 16, [anon_sym_LBRACK,
       anon_sym_LPAREN, anon_sym_QMARK_QMARK, sym_equality_operator, anon_sym_LT_EQ,
       anon_sym_GT_EQ, anon_sym_CARET, anon_sym_LT_LT, anon_sym_GT_GT_GT, sym__additive_operator,
       anon_sym_is, anon_sym_as, anon_sym_DOT_DOT, anon_sym_QMARK_DOT_DOT, anon_sym_AMP_AMP,
       anon_sym_PIPE_PIPE])])]"

lemma small_run_574: "small_run 1572 80245 ts_small_parse_table_574 1575 80402"
  by (simp add: small_simps ts_small_parse_table_574_def)

definition ts_small_parse_table_575 :: "small_group list" where
  "ts_small_parse_table_575 = [
     (80402, 10, [(ACTIONS 3, 1, [anon_sym_SLASH_SLASH]), (ACTIONS 5, 1,
       [anon_sym_SLASH_STAR]), (ACTIONS 7, 1, [anon_sym_SLASH_SLASH_SLASH]), (ACTIONS 9, 1,
       [sym__block_comment]), (ACTIONS 11, 1, [sym__documentation_block_comment]), (ACTIONS 2577,
       1, [sym__additive_operator]), (STATE 335, 1, [sym_additive_operator]), (STATE 1575, 3,
       [sym_comment, sym_documentation_comment, aux_sym_additive_expression_repeat1]), (ACTIONS
       1355, 9, [anon_sym_QMARK, anon_sym_LT, anon_sym_GT, anon_sym_PIPE, anon_sym_AMP,
       anon_sym_GT_GT, anon_sym_BANG, anon_sym_DOT, anon_sym_QMARK_DOT]), (ACTIONS 1353, 15,
       [anon_sym_LBRACK, anon_sym_LPAREN, anon_sym_QMARK_QMARK, sym_equality_operator,
       anon_sym_LT_EQ, anon_sym_GT_EQ, anon_sym_CARET, anon_sym_LT_LT, anon_sym_GT_GT_GT,
       anon_sym_is, anon_sym_as, anon_sym_DOT_DOT, anon_sym_QMARK_DOT_DOT, anon_sym_AMP_AMP,
       anon_sym_PIPE_PIPE])]),
     (80457, 8, [(ACTIONS 3, 1, [anon_sym_SLASH_SLASH]), (ACTIONS 5, 1, [anon_sym_SLASH_STAR]),
       (ACTIONS 7, 1, [anon_sym_SLASH_SLASH_SLASH]), (ACTIONS 9, 1, [sym__block_comment]),
       (ACTIONS 11, 1, [sym__documentation_block_comment]), (STATE 1576, 2, [sym_comment,
       sym_documentation_comment]), (ACTIONS 3645, 4, [ts_builtin_sym_end, anon_sym_LPAREN,
       anon_sym_AT, sym_part_of_builtin]), (ACTIONS 3647, 23, [anon_sym_part, anon_sym_enum,
       anon_sym_final, anon_sym_inline, anon_sym_class, anon_sym_extension, sym_void_type,
       anon_sym_var, anon_sym_export, anon_sym_Function, anon_sym_get, anon_sym_import,
       anon_sym_interface, anon_sym_base, anon_sym_abstract, anon_sym_sealed, anon_sym_mixin,
       anon_sym_set, anon_sym_typedef, sym_const_builtin, anon_sym_late, anon_sym_external,
       sym_identifier])]),
     (80508, 8, [(ACTIONS 3, 1, [anon_sym_SLASH_SLASH]), (ACTIONS 5, 1, [anon_sym_SLASH_STAR]),
       (ACTIONS 7, 1, [anon_sym_SLASH_SLASH_SLASH]), (ACTIONS 9, 1, [sym__block_comment]),
       (ACTIONS 11, 1, [sym__documentation_block_comment]), (STATE 1577, 2, [sym_comment,
       sym_documentation_comment]), (ACTIONS 3649, 4, [ts_builtin_sym_end, anon_sym_LPAREN,
       anon_sym_AT, sym_part_of_builtin]), (ACTIONS 3651, 23, [anon_sym_part, anon_sym_enum,
       anon_sym_final, anon_sym_inline, anon_sym_class, anon_sym_extension, sym_void_type,
       anon_sym_var, anon_sym_export, anon_sym_Function, anon_sym_get, anon_sym_import,
       anon_sym_interface, anon_sym_base, anon_sym_abstract, anon_sym_sealed, anon_sym_mixin,
       anon_sym_set, anon_sym_typedef, sym_const_builtin, anon_sym_late, anon_sym_external,
       sym_identifier])])]"

lemma small_run_575: "small_run 1575 80402 ts_small_parse_table_575 1578 80559"
  by (simp add: small_simps ts_small_parse_table_575_def)

definition ts_small_parse_table_576 :: "small_group list" where
  "ts_small_parse_table_576 = [
     (80559, 8, [(ACTIONS 3, 1, [anon_sym_SLASH_SLASH]), (ACTIONS 5, 1, [anon_sym_SLASH_STAR]),
       (ACTIONS 7, 1, [anon_sym_SLASH_SLASH_SLASH]), (ACTIONS 9, 1, [sym__block_comment]),
       (ACTIONS 11, 1, [sym__documentation_block_comment]), (STATE 1578, 2, [sym_comment,
       sym_documentation_comment]), (ACTIONS 2946, 8, [anon_sym_QMARK, anon_sym_LT, anon_sym_GT,
       anon_sym_PIPE, anon_sym_AMP, anon_sym_GT_GT, anon_sym_as, anon_sym_async]), (ACTIONS 2944,
       19, [anon_sym_LBRACE, anon_sym_COMMA, anon_sym_QMARK_QMARK, sym_equality_operator,
       anon_sym_LT_EQ, anon_sym_GT_EQ, anon_sym_CARET, anon_sym_LT_LT, anon_sym_GT_GT_GT,
       sym__additive_operator, anon_sym_is, anon_sym_DOT_DOT, anon_sym_QMARK_DOT_DOT,
       anon_sym_SEMI, anon_sym_EQ_GT, anon_sym_async_STAR, anon_sym_sync_STAR, anon_sym_AMP_AMP,
       anon_sym_PIPE_PIPE])]),
     (80610, 8, [(ACTIONS 3, 1, [anon_sym_SLASH_SLASH]), (ACTIONS 5, 1, [anon_sym_SLASH_STAR]),
       (ACTIONS 7, 1, [anon_sym_SLASH_SLASH_SLASH]), (ACTIONS 9, 1, [sym__block_comment]),
       (ACTIONS 11, 1, [sym__documentation_block_comment]), (STATE 1579, 2, [sym_comment,
       sym_documentation_comment]), (ACTIONS 3653, 4, [ts_builtin_sym_end, anon_sym_LPAREN,
       anon_sym_AT, sym_part_of_builtin]), (ACTIONS 3655, 23, [anon_sym_part, anon_sym_enum,
       anon_sym_final, anon_sym_inline, anon_sym_class, anon_sym_extension, sym_void_type,
       anon_sym_var, anon_sym_export, anon_sym_Function, anon_sym_get, anon_sym_import,
       anon_sym_interface, anon_sym_base, anon_sym_abstract, anon_sym_sealed, anon_sym_mixin,
       anon_sym_set, anon_sym_typedef, sym_const_builtin, anon_sym_late, anon_sym_external,
       sym_identifier])]),
     (80661, 10, [(ACTIONS 3, 1, [anon_sym_SLASH_SLASH]), (ACTIONS 5, 1,
       [anon_sym_SLASH_STAR]), (ACTIONS 7, 1, [anon_sym_SLASH_SLASH_SLASH]), (ACTIONS 9, 1,
       [sym__block_comment]), (ACTIONS 11, 1, [sym__documentation_block_comment]), (ACTIONS 2577,
       1, [sym__additive_operator]), (STATE 361, 1, [sym_additive_operator]), (STATE 1580, 3,
       [sym_comment, sym_documentation_comment, aux_sym_additive_expression_repeat1]), (ACTIONS
       1355, 6, [anon_sym_QMARK, anon_sym_LT, anon_sym_GT, anon_sym_PIPE, anon_sym_AMP,
       anon_sym_GT_GT]), (ACTIONS 1353, 18, [anon_sym_RBRACE, anon_sym_COMMA, anon_sym_RBRACK,
       anon_sym_COLON, anon_sym_RPAREN, anon_sym_QMARK_QMARK, sym_equality_operator,
       anon_sym_LT_EQ, anon_sym_GT_EQ, anon_sym_CARET, anon_sym_LT_LT, anon_sym_GT_GT_GT,
       anon_sym_is, anon_sym_as, anon_sym_EQ_GT, anon_sym_when, anon_sym_AMP_AMP,
       anon_sym_PIPE_PIPE])])]"

lemma small_run_576: "small_run 1578 80559 ts_small_parse_table_576 1581 80716"
  by (simp add: small_simps ts_small_parse_table_576_def)

definition ts_small_parse_table_577 :: "small_group list" where
  "ts_small_parse_table_577 = [
     (80716, 8, [(ACTIONS 3, 1, [anon_sym_SLASH_SLASH]), (ACTIONS 5, 1, [anon_sym_SLASH_STAR]),
       (ACTIONS 7, 1, [anon_sym_SLASH_SLASH_SLASH]), (ACTIONS 9, 1, [sym__block_comment]),
       (ACTIONS 11, 1, [sym__documentation_block_comment]), (STATE 1581, 2, [sym_comment,
       sym_documentation_comment]), (ACTIONS 3657, 4, [ts_builtin_sym_end, anon_sym_LPAREN,
       anon_sym_AT, sym_part_of_builtin]), (ACTIONS 3659, 23, [anon_sym_part, anon_sym_enum,
       anon_sym_final, anon_sym_inline, anon_sym_class, anon_sym_extension, sym_void_type,
       anon_sym_var, anon_sym_export, anon_sym_Function, anon_sym_get, anon_sym_import,
       anon_sym_interface, anon_sym_base, anon_sym_abstract, anon_sym_sealed, anon_sym_mixin,
       anon_sym_set, anon_sym_typedef, sym_const_builtin, anon_sym_late, anon_sym_external,
       sym_identifier])]),
     (80767, 10, [(ACTIONS 3, 1, [anon_sym_SLASH_SLASH]), (ACTIONS 5, 1,
       [anon_sym_SLASH_STAR]), (ACTIONS 7, 1, [anon_sym_SLASH_SLASH_SLASH]), (ACTIONS 9, 1,
       [sym__block_comment]), (ACTIONS 11, 1, [sym__documentation_block_comment]), (STATE 335, 1,
       [sym_additive_operator]), (STATE 1575, 1, [aux_sym_additive_expression_repeat1]), (STATE
       1582, 2, [sym_comment, sym_documentation_comment]), (ACTIONS 2596, 9, [anon_sym_QMARK,
       anon_sym_LT, anon_sym_GT, anon_sym_PIPE, anon_sym_AMP, anon_sym_GT_GT, anon_sym_BANG,
       anon_sym_DOT, anon_sym_QMARK_DOT]), (ACTIONS 2594, 16, [anon_sym_LBRACK, anon_sym_LPAREN,
       anon_sym_QMARK_QMARK, sym_equality_operator, anon_sym_LT_EQ, anon_sym_GT_EQ,
       anon_sym_CARET, anon_sym_LT_LT, anon_sym_GT_GT_GT, sym__additive_operator, anon_sym_is,
       anon_sym_as, anon_sym_DOT_DOT, anon_sym_QMARK_DOT_DOT, anon_sym_AMP_AMP,
       anon_sym_PIPE_PIPE])]),
     (80822, 8, [(ACTIONS 3, 1, [anon_sym_SLASH_SLASH]), (ACTIONS 5, 1, [anon_sym_SLASH_STAR]),
       (ACTIONS 7, 1, [anon_sym_SLASH_SLASH_SLASH]), (ACTIONS 9, 1, [sym__block_comment]),
       (ACTIONS 11, 1, [sym__documentation_block_comment]), (STATE 1583, 2, [sym_comment,
       sym_documentation_comment]), (ACTIONS 2764, 8, [anon_sym_QMARK, anon_sym_LT, anon_sym_GT,
       anon_sym_PIPE, anon_sym_AMP, anon_sym_GT_GT, anon_sym_as, anon_sym_async]), (ACTIONS 2762,
       19, [anon_sym_LBRACE, anon_sym_COMMA, anon_sym_QMARK_QMARK, sym_equality_operator,
       anon_sym_LT_EQ, anon_sym_GT_EQ, anon_sym_CARET, anon_sym_LT_LT, anon_sym_GT_GT_GT,
       sym__additive_operator, anon_sym_is, anon_sym_DOT_DOT, anon_sym_QMARK_DOT_DOT,
       anon_sym_SEMI, anon_sym_EQ_GT, anon_sym_async_STAR, anon_sym_sync_STAR, anon_sym_AMP_AMP,
       anon_sym_PIPE_PIPE])])]"

lemma small_run_577: "small_run 1581 80716 ts_small_parse_table_577 1584 80873"
  by (simp add: small_simps ts_small_parse_table_577_def)

definition ts_small_parse_table_578 :: "small_group list" where
  "ts_small_parse_table_578 = [
     (80873, 8, [(ACTIONS 3, 1, [anon_sym_SLASH_SLASH]), (ACTIONS 5, 1, [anon_sym_SLASH_STAR]),
       (ACTIONS 7, 1, [anon_sym_SLASH_SLASH_SLASH]), (ACTIONS 9, 1, [sym__block_comment]),
       (ACTIONS 11, 1, [sym__documentation_block_comment]), (STATE 1584, 2, [sym_comment,
       sym_documentation_comment]), (ACTIONS 3661, 4, [ts_builtin_sym_end, anon_sym_LPAREN,
       anon_sym_AT, sym_part_of_builtin]), (ACTIONS 3663, 23, [anon_sym_part, anon_sym_enum,
       anon_sym_final, anon_sym_inline, anon_sym_class, anon_sym_extension, sym_void_type,
       anon_sym_var, anon_sym_export, anon_sym_Function, anon_sym_get, anon_sym_import,
       anon_sym_interface, anon_sym_base, anon_sym_abstract, anon_sym_sealed, anon_sym_mixin,
       anon_sym_set, anon_sym_typedef, sym_const_builtin, anon_sym_late, anon_sym_external,
       sym_identifier])]),
     (80924, 8, [(ACTIONS 3, 1, [anon_sym_SLASH_SLASH]), (ACTIONS 5, 1, [anon_sym_SLASH_STAR]),
       (ACTIONS 7, 1, [anon_sym_SLASH_SLASH_SLASH]), (ACTIONS 9, 1, [sym__block_comment]),
       (ACTIONS 11, 1, [sym__documentation_block_comment]), (STATE 1585, 2, [sym_comment,
       sym_documentation_comment]), (ACTIONS 3396, 3, [anon_sym_LPAREN, anon_sym_AT,
       sym_part_of_builtin]), (ACTIONS 3394, 24, [anon_sym_part, anon_sym_enum, anon_sym_final,
       anon_sym_inline, anon_sym_class, anon_sym_extension, sym_void_type, anon_sym_var,
       anon_sym_library, anon_sym_export, anon_sym_Function, anon_sym_get, anon_sym_import,
       anon_sym_interface, anon_sym_base, anon_sym_abstract, anon_sym_sealed, anon_sym_mixin,
       anon_sym_set, anon_sym_typedef, sym_const_builtin, anon_sym_late, anon_sym_external,
       sym_identifier])]),
     (80975, 12, [(ACTIONS 3, 1, [anon_sym_SLASH_SLASH]), (ACTIONS 5, 1,
       [anon_sym_SLASH_STAR]), (ACTIONS 7, 1, [anon_sym_SLASH_SLASH_SLASH]), (ACTIONS 9, 1,
       [sym__block_comment]), (ACTIONS 11, 1, [sym__documentation_block_comment]), (ACTIONS 45,
       1, [anon_sym_Function]), (STATE 1498, 1, [sym__function_builtin_identifier]), (STATE 1565,
       1, [aux_sym__function_type_tails]), (STATE 1704, 1, [sym__function_type_tail]), (STATE
       1586, 2, [sym_comment, sym_documentation_comment]), (ACTIONS 2437, 10, [anon_sym_when,
       anon_sym_catch, anon_sym_with, anon_sym_get, anon_sym_implements, anon_sym_operator,
       anon_sym_set, anon_sym_this, anon_sym_super, sym_identifier]), (ACTIONS 2435, 13,
       [anon_sym_LBRACE, anon_sym_RBRACE, anon_sym_COMMA, anon_sym_RBRACK, anon_sym_COLON,
       anon_sym_RPAREN, anon_sym_QMARK, anon_sym_GT, anon_sym_DOT, anon_sym_SEMI, anon_sym_EQ_GT,
       anon_sym_AMP_AMP, anon_sym_PIPE_PIPE])])]"

lemma small_run_578: "small_run 1584 80873 ts_small_parse_table_578 1587 81034"
  by (simp add: small_simps ts_small_parse_table_578_def)

definition ts_small_parse_table_579 :: "small_group list" where
  "ts_small_parse_table_579 = [
     (81034, 12, [(ACTIONS 3, 1, [anon_sym_SLASH_SLASH]), (ACTIONS 5, 1,
       [anon_sym_SLASH_STAR]), (ACTIONS 7, 1, [anon_sym_SLASH_SLASH_SLASH]), (ACTIONS 9, 1,
       [sym__block_comment]), (ACTIONS 11, 1, [sym__documentation_block_comment]), (ACTIONS 3506,
       1, [anon_sym_LPAREN]), (ACTIONS 3616, 1, [anon_sym_QMARK]), (STATE 1616, 1,
       [sym_parameter_type_list]), (STATE 1684, 1, [sym_nullable_type]), (STATE 1587, 2,
       [sym_comment, sym_documentation_comment]), (ACTIONS 2528, 11, [anon_sym_when,
       anon_sym_catch, anon_sym_with, anon_sym_Function, anon_sym_get, anon_sym_implements,
       anon_sym_operator, anon_sym_set, anon_sym_this, anon_sym_super, sym_identifier]), (ACTIONS
       2517, 12, [anon_sym_LBRACE, anon_sym_RBRACE, anon_sym_COMMA, anon_sym_RBRACK,
       anon_sym_COLON, anon_sym_RPAREN, anon_sym_GT, anon_sym_DOT, anon_sym_SEMI, anon_sym_EQ_GT,
       anon_sym_AMP_AMP, anon_sym_PIPE_PIPE])]),
     (81093, 8, [(ACTIONS 3, 1, [anon_sym_SLASH_SLASH]), (ACTIONS 5, 1, [anon_sym_SLASH_STAR]),
       (ACTIONS 7, 1, [anon_sym_SLASH_SLASH_SLASH]), (ACTIONS 9, 1, [sym__block_comment]),
       (ACTIONS 11, 1, [sym__documentation_block_comment]), (STATE 1588, 2, [sym_comment,
       sym_documentation_comment]), (ACTIONS 2640, 6, [anon_sym_QMARK, anon_sym_LT, anon_sym_GT,
       anon_sym_PIPE, anon_sym_AMP, anon_sym_GT_GT]), (ACTIONS 2638, 21, [anon_sym_RBRACE,
       anon_sym_COMMA, anon_sym_RBRACK, anon_sym_COLON, anon_sym_LPAREN, anon_sym_RPAREN,
       anon_sym_QMARK_QMARK, sym_equality_operator, anon_sym_LT_EQ, anon_sym_GT_EQ,
       anon_sym_CARET, anon_sym_LT_LT, anon_sym_GT_GT_GT, sym__additive_operator, anon_sym_is,
       anon_sym_as, anon_sym_EQ_GT, anon_sym_when, anon_sym_Function, anon_sym_AMP_AMP,
       anon_sym_PIPE_PIPE])]),
     (81144, 10, [(ACTIONS 3, 1, [anon_sym_SLASH_SLASH]), (ACTIONS 5, 1,
       [anon_sym_SLASH_STAR]), (ACTIONS 7, 1, [anon_sym_SLASH_SLASH_SLASH]), (ACTIONS 9, 1,
       [sym__block_comment]), (ACTIONS 11, 1, [sym__documentation_block_comment]), (ACTIONS 3513,
       1, [anon_sym_QMARK]), (STATE 1635, 1, [sym_nullable_type]), (STATE 1589, 2, [sym_comment,
       sym_documentation_comment]), (ACTIONS 2487, 5, [anon_sym_LT, anon_sym_GT, anon_sym_PIPE,
       anon_sym_AMP, anon_sym_GT_GT]), (ACTIONS 2479, 20, [anon_sym_RBRACE, anon_sym_COMMA,
       anon_sym_RBRACK, anon_sym_COLON, anon_sym_RPAREN, anon_sym_QMARK_QMARK,
       sym_equality_operator, anon_sym_LT_EQ, anon_sym_GT_EQ, anon_sym_CARET, anon_sym_LT_LT,
       anon_sym_GT_GT_GT, sym__additive_operator, anon_sym_is, anon_sym_as, anon_sym_EQ_GT,
       anon_sym_when, anon_sym_Function, anon_sym_AMP_AMP, anon_sym_PIPE_PIPE])])]"

lemma small_run_579: "small_run 1587 81034 ts_small_parse_table_579 1590 81199"
  by (simp add: small_simps ts_small_parse_table_579_def)

definition ts_small_parse_table_580 :: "small_group list" where
  "ts_small_parse_table_580 = [
     (81199, 11, [(ACTIONS 3, 1, [anon_sym_SLASH_SLASH]), (ACTIONS 5, 1,
       [anon_sym_SLASH_STAR]), (ACTIONS 7, 1, [anon_sym_SLASH_SLASH_SLASH]), (ACTIONS 9, 1,
       [sym__block_comment]), (ACTIONS 11, 1, [sym__documentation_block_comment]), (ACTIONS 2548,
       1, [anon_sym_Function]), (ACTIONS 3665, 1, [anon_sym_QMARK]), (STATE 1631, 1,
       [sym_nullable_type]), (STATE 1590, 2, [sym_comment, sym_documentation_comment]), (ACTIONS
       2546, 5, [anon_sym_LT, anon_sym_GT, anon_sym_PIPE, anon_sym_AMP, anon_sym_GT_GT]),
       (ACTIONS 2541, 19, [anon_sym_RBRACE, anon_sym_COMMA, anon_sym_RBRACK, anon_sym_COLON,
       anon_sym_RPAREN, anon_sym_QMARK_QMARK, sym_equality_operator, anon_sym_LT_EQ,
       anon_sym_GT_EQ, anon_sym_CARET, anon_sym_LT_LT, anon_sym_GT_GT_GT, sym__additive_operator,
       anon_sym_is, anon_sym_as, anon_sym_EQ_GT, anon_sym_when, anon_sym_AMP_AMP,
       anon_sym_PIPE_PIPE])]),
     (81256, 8, [(ACTIONS 3, 1, [anon_sym_SLASH_SLASH]), (ACTIONS 5, 1, [anon_sym_SLASH_STAR]),
       (ACTIONS 7, 1, [anon_sym_SLASH_SLASH_SLASH]), (ACTIONS 9, 1, [sym__block_comment]),
       (ACTIONS 11, 1, [sym__documentation_block_comment]), (STATE 1591, 2, [sym_comment,
       sym_documentation_comment]), (ACTIONS 2910, 8, [anon_sym_QMARK, anon_sym_LT, anon_sym_GT,
       anon_sym_PIPE, anon_sym_AMP, anon_sym_GT_GT, anon_sym_as, anon_sym_async]), (ACTIONS 2908,
       19, [anon_sym_LBRACE, anon_sym_COMMA, anon_sym_QMARK_QMARK, sym_equality_operator,
       anon_sym_LT_EQ, anon_sym_GT_EQ, anon_sym_CARET, anon_sym_LT_LT, anon_sym_GT_GT_GT,
       sym__additive_operator, anon_sym_is, anon_sym_DOT_DOT, anon_sym_QMARK_DOT_DOT,
       anon_sym_SEMI, anon_sym_EQ_GT, anon_sym_async_STAR, anon_sym_sync_STAR, anon_sym_AMP_AMP,
       anon_sym_PIPE_PIPE])]),
     (81307, 10, [(ACTIONS 3, 1, [anon_sym_SLASH_SLASH]), (ACTIONS 5, 1,
       [anon_sym_SLASH_STAR]), (ACTIONS 7, 1, [anon_sym_SLASH_SLASH_SLASH]), (ACTIONS 9, 1,
       [sym__block_comment]), (ACTIONS 11, 1, [sym__documentation_block_comment]), (STATE 369, 1,
       [sym_logical_or_operator]), (STATE 1608, 1, [aux_sym_logical_or_expression_repeat1]),
       (STATE 1592, 2, [sym_comment, sym_documentation_comment]), (ACTIONS 2600, 6,
       [anon_sym_QMARK, anon_sym_LT, anon_sym_GT, anon_sym_PIPE, anon_sym_AMP, anon_sym_GT_GT]),
       (ACTIONS 2598, 19, [anon_sym_RBRACE, anon_sym_COMMA, anon_sym_RBRACK, anon_sym_COLON,
       anon_sym_RPAREN, anon_sym_QMARK_QMARK, sym_equality_operator, anon_sym_LT_EQ,
       anon_sym_GT_EQ, anon_sym_CARET, anon_sym_LT_LT, anon_sym_GT_GT_GT, sym__additive_operator,
       anon_sym_is, anon_sym_as, anon_sym_EQ_GT, anon_sym_when, anon_sym_AMP_AMP,
       anon_sym_PIPE_PIPE])])]"

lemma small_run_580: "small_run 1590 81199 ts_small_parse_table_580 1593 81362"
  by (simp add: small_simps ts_small_parse_table_580_def)

definition ts_small_parse_table_581 :: "small_group list" where
  "ts_small_parse_table_581 = [
     (81362, 14, [(ACTIONS 3, 1, [anon_sym_SLASH_SLASH]), (ACTIONS 5, 1,
       [anon_sym_SLASH_STAR]), (ACTIONS 7, 1, [anon_sym_SLASH_SLASH_SLASH]), (ACTIONS 9, 1,
       [sym__block_comment]), (ACTIONS 11, 1, [sym__documentation_block_comment]), (ACTIONS 1392,
       1, [anon_sym_LT]), (ACTIONS 3668, 1, [anon_sym_LPAREN]), (STATE 1088, 1,
       [sym_argument_part]), (STATE 1109, 1, [sym_arguments]), (STATE 1597, 1,
       [aux_sym_cascade_section_repeat1]), (STATE 3052, 1, [sym_type_arguments]), (STATE 1593, 2,
       [sym_comment, sym_documentation_comment]), (ACTIONS 1390, 3, [anon_sym_QMARK,
       anon_sym_DOT, anon_sym_QMARK_DOT]), (ACTIONS 1385, 18, [anon_sym_LBRACK, anon_sym_EQ,
       anon_sym_PLUS_EQ, anon_sym_DASH_EQ, anon_sym_STAR_EQ, anon_sym_SLASH_EQ,
       anon_sym_PERCENT_EQ, anon_sym_TILDE_SLASH_EQ, anon_sym_LT_LT_EQ, anon_sym_GT_GT_EQ,
       anon_sym_GT_GT_GT_EQ, anon_sym_AMP_EQ, anon_sym_CARET_EQ, anon_sym_PIPE_EQ,
       anon_sym_QMARK_QMARK_EQ, anon_sym_BANG, anon_sym_DOT_DOT, anon_sym_QMARK_DOT_DOT])]),
     (81425, 8, [(ACTIONS 3, 1, [anon_sym_SLASH_SLASH]), (ACTIONS 5, 1, [anon_sym_SLASH_STAR]),
       (ACTIONS 7, 1, [anon_sym_SLASH_SLASH_SLASH]), (ACTIONS 9, 1, [sym__block_comment]),
       (ACTIONS 11, 1, [sym__documentation_block_comment]), (STATE 1594, 2, [sym_comment,
       sym_documentation_comment]), (ACTIONS 2838, 8, [anon_sym_QMARK, anon_sym_LT, anon_sym_GT,
       anon_sym_PIPE, anon_sym_AMP, anon_sym_GT_GT, anon_sym_as, anon_sym_async]), (ACTIONS 2836,
       19, [anon_sym_LBRACE, anon_sym_COMMA, anon_sym_QMARK_QMARK, sym_equality_operator,
       anon_sym_LT_EQ, anon_sym_GT_EQ, anon_sym_CARET, anon_sym_LT_LT, anon_sym_GT_GT_GT,
       sym__additive_operator, anon_sym_is, anon_sym_DOT_DOT, anon_sym_QMARK_DOT_DOT,
       anon_sym_SEMI, anon_sym_EQ_GT, anon_sym_async_STAR, anon_sym_sync_STAR, anon_sym_AMP_AMP,
       anon_sym_PIPE_PIPE])]),
     (81476, 8, [(ACTIONS 3, 1, [anon_sym_SLASH_SLASH]), (ACTIONS 5, 1, [anon_sym_SLASH_STAR]),
       (ACTIONS 7, 1, [anon_sym_SLASH_SLASH_SLASH]), (ACTIONS 9, 1, [sym__block_comment]),
       (ACTIONS 11, 1, [sym__documentation_block_comment]), (STATE 1595, 2, [sym_comment,
       sym_documentation_comment]), (ACTIONS 2842, 8, [anon_sym_QMARK, anon_sym_LT, anon_sym_GT,
       anon_sym_PIPE, anon_sym_AMP, anon_sym_GT_GT, anon_sym_as, anon_sym_async]), (ACTIONS 2840,
       19, [anon_sym_LBRACE, anon_sym_COMMA, anon_sym_QMARK_QMARK, sym_equality_operator,
       anon_sym_LT_EQ, anon_sym_GT_EQ, anon_sym_CARET, anon_sym_LT_LT, anon_sym_GT_GT_GT,
       sym__additive_operator, anon_sym_is, anon_sym_DOT_DOT, anon_sym_QMARK_DOT_DOT,
       anon_sym_SEMI, anon_sym_EQ_GT, anon_sym_async_STAR, anon_sym_sync_STAR, anon_sym_AMP_AMP,
       anon_sym_PIPE_PIPE])])]"

lemma small_run_581: "small_run 1593 81362 ts_small_parse_table_581 1596 81527"
  by (simp add: small_simps ts_small_parse_table_581_def)

definition ts_small_parse_table_582 :: "small_group list" where
  "ts_small_parse_table_582 = [
     (81527, 8, [(ACTIONS 3, 1, [anon_sym_SLASH_SLASH]), (ACTIONS 5, 1, [anon_sym_SLASH_STAR]),
       (ACTIONS 7, 1, [anon_sym_SLASH_SLASH_SLASH]), (ACTIONS 9, 1, [sym__block_comment]),
       (ACTIONS 11, 1, [sym__documentation_block_comment]), (STATE 1596, 2, [sym_comment,
       sym_documentation_comment]), (ACTIONS 2950, 8, [anon_sym_QMARK, anon_sym_LT, anon_sym_GT,
       anon_sym_PIPE, anon_sym_AMP, anon_sym_GT_GT, anon_sym_as, anon_sym_async]), (ACTIONS 2948,
       19, [anon_sym_LBRACE, anon_sym_COMMA, anon_sym_QMARK_QMARK, sym_equality_operator,
       anon_sym_LT_EQ, anon_sym_GT_EQ, anon_sym_CARET, anon_sym_LT_LT, anon_sym_GT_GT_GT,
       sym__additive_operator, anon_sym_is, anon_sym_DOT_DOT, anon_sym_QMARK_DOT_DOT,
       anon_sym_SEMI, anon_sym_EQ_GT, anon_sym_async_STAR, anon_sym_sync_STAR, anon_sym_AMP_AMP,
       anon_sym_PIPE_PIPE])]),
     (81578, 14, [(ACTIONS 3, 1, [anon_sym_SLASH_SLASH]), (ACTIONS 5, 1,
       [anon_sym_SLASH_STAR]), (ACTIONS 7, 1, [anon_sym_SLASH_SLASH_SLASH]), (ACTIONS 9, 1,
       [sym__block_comment]), (ACTIONS 11, 1, [sym__documentation_block_comment]), (ACTIONS 1378,
       1, [anon_sym_LT]), (ACTIONS 3671, 1, [anon_sym_LPAREN]), (STATE 874, 1,
       [aux_sym_cascade_section_repeat1]), (STATE 1088, 1, [sym_argument_part]), (STATE 1109, 1,
       [sym_arguments]), (STATE 3052, 1, [sym_type_arguments]), (STATE 1597, 2, [sym_comment,
       sym_documentation_comment]), (ACTIONS 1376, 3, [anon_sym_QMARK, anon_sym_DOT,
       anon_sym_QMARK_DOT]), (ACTIONS 1371, 18, [anon_sym_LBRACK, anon_sym_EQ, anon_sym_PLUS_EQ,
       anon_sym_DASH_EQ, anon_sym_STAR_EQ, anon_sym_SLASH_EQ, anon_sym_PERCENT_EQ,
       anon_sym_TILDE_SLASH_EQ, anon_sym_LT_LT_EQ, anon_sym_GT_GT_EQ, anon_sym_GT_GT_GT_EQ,
       anon_sym_AMP_EQ, anon_sym_CARET_EQ, anon_sym_PIPE_EQ, anon_sym_QMARK_QMARK_EQ,
       anon_sym_BANG, anon_sym_DOT_DOT, anon_sym_QMARK_DOT_DOT])]),
     (81641, 8, [(ACTIONS 3, 1, [anon_sym_SLASH_SLASH]), (ACTIONS 5, 1, [anon_sym_SLASH_STAR]),
       (ACTIONS 7, 1, [anon_sym_SLASH_SLASH_SLASH]), (ACTIONS 9, 1, [sym__block_comment]),
       (ACTIONS 11, 1, [sym__documentation_block_comment]), (STATE 1598, 2, [sym_comment,
       sym_documentation_comment]), (ACTIONS 3674, 4, [ts_builtin_sym_end, anon_sym_LPAREN,
       anon_sym_AT, sym_part_of_builtin]), (ACTIONS 3676, 23, [anon_sym_part, anon_sym_enum,
       anon_sym_final, anon_sym_inline, anon_sym_class, anon_sym_extension, sym_void_type,
       anon_sym_var, anon_sym_export, anon_sym_Function, anon_sym_get, anon_sym_import,
       anon_sym_interface, anon_sym_base, anon_sym_abstract, anon_sym_sealed, anon_sym_mixin,
       anon_sym_set, anon_sym_typedef, sym_const_builtin, anon_sym_late, anon_sym_external,
       sym_identifier])])]"

lemma small_run_582: "small_run 1596 81527 ts_small_parse_table_582 1599 81692"
  by (simp add: small_simps ts_small_parse_table_582_def)

definition ts_small_parse_table_583 :: "small_group list" where
  "ts_small_parse_table_583 = [
     (81692, 10, [(ACTIONS 3, 1, [anon_sym_SLASH_SLASH]), (ACTIONS 5, 1,
       [anon_sym_SLASH_STAR]), (ACTIONS 7, 1, [anon_sym_SLASH_SLASH_SLASH]), (ACTIONS 9, 1,
       [sym__block_comment]), (ACTIONS 11, 1, [sym__documentation_block_comment]), (ACTIONS 3678,
       1, [anon_sym_QMARK]), (STATE 1644, 1, [sym_nullable_type]), (STATE 1599, 2, [sym_comment,
       sym_documentation_comment]), (ACTIONS 2572, 5, [anon_sym_LT, anon_sym_GT, anon_sym_PIPE,
       anon_sym_AMP, anon_sym_GT_GT]), (ACTIONS 2567, 20, [anon_sym_RBRACE, anon_sym_COMMA,
       anon_sym_RBRACK, anon_sym_COLON, anon_sym_RPAREN, anon_sym_QMARK_QMARK,
       sym_equality_operator, anon_sym_LT_EQ, anon_sym_GT_EQ, anon_sym_CARET, anon_sym_LT_LT,
       anon_sym_GT_GT_GT, sym__additive_operator, anon_sym_is, anon_sym_as, anon_sym_EQ_GT,
       anon_sym_when, anon_sym_Function, anon_sym_AMP_AMP, anon_sym_PIPE_PIPE])]),
     (81747, 10, [(ACTIONS 3, 1, [anon_sym_SLASH_SLASH]), (ACTIONS 5, 1,
       [anon_sym_SLASH_STAR]), (ACTIONS 7, 1, [anon_sym_SLASH_SLASH_SLASH]), (ACTIONS 9, 1,
       [sym__block_comment]), (ACTIONS 11, 1, [sym__documentation_block_comment]), (ACTIONS 3681,
       1, [anon_sym_QMARK]), (STATE 1618, 1, [sym_nullable_type]), (STATE 1600, 2, [sym_comment,
       sym_documentation_comment]), (ACTIONS 2555, 5, [anon_sym_LT, anon_sym_GT, anon_sym_PIPE,
       anon_sym_AMP, anon_sym_GT_GT]), (ACTIONS 2550, 20, [anon_sym_RBRACE, anon_sym_COMMA,
       anon_sym_RBRACK, anon_sym_COLON, anon_sym_RPAREN, anon_sym_QMARK_QMARK,
       sym_equality_operator, anon_sym_LT_EQ, anon_sym_GT_EQ, anon_sym_CARET, anon_sym_LT_LT,
       anon_sym_GT_GT_GT, sym__additive_operator, anon_sym_is, anon_sym_as, anon_sym_EQ_GT,
       anon_sym_when, anon_sym_Function, anon_sym_AMP_AMP, anon_sym_PIPE_PIPE])]),
     (81802, 8, [(ACTIONS 3, 1, [anon_sym_SLASH_SLASH]), (ACTIONS 5, 1, [anon_sym_SLASH_STAR]),
       (ACTIONS 7, 1, [anon_sym_SLASH_SLASH_SLASH]), (ACTIONS 9, 1, [sym__block_comment]),
       (ACTIONS 11, 1, [sym__documentation_block_comment]), (STATE 1601, 2, [sym_comment,
       sym_documentation_comment]), (ACTIONS 2747, 6, [anon_sym_QMARK, anon_sym_LT, anon_sym_GT,
       anon_sym_PIPE, anon_sym_AMP, anon_sym_GT_GT]), (ACTIONS 2745, 21, [anon_sym_RBRACE,
       anon_sym_COMMA, anon_sym_RBRACK, anon_sym_COLON, anon_sym_LPAREN, anon_sym_RPAREN,
       anon_sym_QMARK_QMARK, sym_equality_operator, anon_sym_LT_EQ, anon_sym_GT_EQ,
       anon_sym_CARET, anon_sym_LT_LT, anon_sym_GT_GT_GT, sym__additive_operator, anon_sym_is,
       anon_sym_as, anon_sym_EQ_GT, anon_sym_when, anon_sym_Function, anon_sym_AMP_AMP,
       anon_sym_PIPE_PIPE])])]"

lemma small_run_583: "small_run 1599 81692 ts_small_parse_table_583 1602 81853"
  by (simp add: small_simps ts_small_parse_table_583_def)

definition ts_small_parse_table_584 :: "small_group list" where
  "ts_small_parse_table_584 = [
     (81853, 8, [(ACTIONS 3, 1, [anon_sym_SLASH_SLASH]), (ACTIONS 5, 1, [anon_sym_SLASH_STAR]),
       (ACTIONS 7, 1, [anon_sym_SLASH_SLASH_SLASH]), (ACTIONS 9, 1, [sym__block_comment]),
       (ACTIONS 11, 1, [sym__documentation_block_comment]), (STATE 1602, 2, [sym_comment,
       sym_documentation_comment]), (ACTIONS 2739, 6, [anon_sym_QMARK, anon_sym_LT, anon_sym_GT,
       anon_sym_PIPE, anon_sym_AMP, anon_sym_GT_GT]), (ACTIONS 2737, 21, [anon_sym_RBRACE,
       anon_sym_COMMA, anon_sym_RBRACK, anon_sym_COLON, anon_sym_LPAREN, anon_sym_RPAREN,
       anon_sym_QMARK_QMARK, sym_equality_operator, anon_sym_LT_EQ, anon_sym_GT_EQ,
       anon_sym_CARET, anon_sym_LT_LT, anon_sym_GT_GT_GT, sym__additive_operator, anon_sym_is,
       anon_sym_as, anon_sym_EQ_GT, anon_sym_when, anon_sym_Function, anon_sym_AMP_AMP,
       anon_sym_PIPE_PIPE])]),
     (81904, 10, [(ACTIONS 3, 1, [anon_sym_SLASH_SLASH]), (ACTIONS 5, 1,
       [anon_sym_SLASH_STAR]), (ACTIONS 7, 1, [anon_sym_SLASH_SLASH_SLASH]), (ACTIONS 9, 1,
       [sym__block_comment]), (ACTIONS 11, 1, [sym__documentation_block_comment]), (ACTIONS 3516,
       1, [anon_sym_QMARK]), (STATE 1647, 1, [sym_nullable_type]), (STATE 1603, 2, [sym_comment,
       sym_documentation_comment]), (ACTIONS 2515, 5, [anon_sym_LT, anon_sym_GT, anon_sym_PIPE,
       anon_sym_AMP, anon_sym_GT_GT]), (ACTIONS 2507, 20, [anon_sym_RBRACE, anon_sym_COMMA,
       anon_sym_RBRACK, anon_sym_COLON, anon_sym_RPAREN, anon_sym_QMARK_QMARK,
       sym_equality_operator, anon_sym_LT_EQ, anon_sym_GT_EQ, anon_sym_CARET, anon_sym_LT_LT,
       anon_sym_GT_GT_GT, sym__additive_operator, anon_sym_is, anon_sym_as, anon_sym_EQ_GT,
       anon_sym_when, anon_sym_Function, anon_sym_AMP_AMP, anon_sym_PIPE_PIPE])]),
     (81959, 8, [(ACTIONS 3, 1, [anon_sym_SLASH_SLASH]), (ACTIONS 5, 1, [anon_sym_SLASH_STAR]),
       (ACTIONS 7, 1, [anon_sym_SLASH_SLASH_SLASH]), (ACTIONS 9, 1, [sym__block_comment]),
       (ACTIONS 11, 1, [sym__documentation_block_comment]), (STATE 1604, 2, [sym_comment,
       sym_documentation_comment]), (ACTIONS 3684, 4, [ts_builtin_sym_end, anon_sym_LPAREN,
       anon_sym_AT, sym_part_of_builtin]), (ACTIONS 3686, 23, [anon_sym_part, anon_sym_enum,
       anon_sym_final, anon_sym_inline, anon_sym_class, anon_sym_extension, sym_void_type,
       anon_sym_var, anon_sym_export, anon_sym_Function, anon_sym_get, anon_sym_import,
       anon_sym_interface, anon_sym_base, anon_sym_abstract, anon_sym_sealed, anon_sym_mixin,
       anon_sym_set, anon_sym_typedef, sym_const_builtin, anon_sym_late, anon_sym_external,
       sym_identifier])])]"

lemma small_run_584: "small_run 1602 81853 ts_small_parse_table_584 1605 82010"
  by (simp add: small_simps ts_small_parse_table_584_def)

definition ts_small_parse_table_585 :: "small_group list" where
  "ts_small_parse_table_585 = [
     (82010, 12, [(ACTIONS 3, 1, [anon_sym_SLASH_SLASH]), (ACTIONS 5, 1,
       [anon_sym_SLASH_STAR]), (ACTIONS 7, 1, [anon_sym_SLASH_SLASH_SLASH]), (ACTIONS 9, 1,
       [sym__block_comment]), (ACTIONS 11, 1, [sym__documentation_block_comment]), (ACTIONS 45,
       1, [anon_sym_Function]), (STATE 1498, 1, [sym__function_builtin_identifier]), (STATE 1565,
       1, [aux_sym__function_type_tails]), (STATE 1704, 1, [sym__function_type_tail]), (STATE
       1605, 2, [sym_comment, sym_documentation_comment]), (ACTIONS 2415, 10, [anon_sym_when,
       anon_sym_catch, anon_sym_with, anon_sym_get, anon_sym_implements, anon_sym_operator,
       anon_sym_set, anon_sym_this, anon_sym_super, sym_identifier]), (ACTIONS 2413, 13,
       [anon_sym_LBRACE, anon_sym_RBRACE, anon_sym_COMMA, anon_sym_RBRACK, anon_sym_COLON,
       anon_sym_RPAREN, anon_sym_QMARK, anon_sym_GT, anon_sym_DOT, anon_sym_SEMI, anon_sym_EQ_GT,
       anon_sym_AMP_AMP, anon_sym_PIPE_PIPE])]),
     (82069, 10, [(ACTIONS 3, 1, [anon_sym_SLASH_SLASH]), (ACTIONS 5, 1,
       [anon_sym_SLASH_STAR]), (ACTIONS 7, 1, [anon_sym_SLASH_SLASH_SLASH]), (ACTIONS 9, 1,
       [sym__block_comment]), (ACTIONS 11, 1, [sym__documentation_block_comment]), (STATE 361, 1,
       [sym_additive_operator]), (STATE 1580, 1, [aux_sym_additive_expression_repeat1]), (STATE
       1606, 2, [sym_comment, sym_documentation_comment]), (ACTIONS 2596, 6, [anon_sym_QMARK,
       anon_sym_LT, anon_sym_GT, anon_sym_PIPE, anon_sym_AMP, anon_sym_GT_GT]), (ACTIONS 2594,
       19, [anon_sym_RBRACE, anon_sym_COMMA, anon_sym_RBRACK, anon_sym_COLON, anon_sym_RPAREN,
       anon_sym_QMARK_QMARK, sym_equality_operator, anon_sym_LT_EQ, anon_sym_GT_EQ,
       anon_sym_CARET, anon_sym_LT_LT, anon_sym_GT_GT_GT, sym__additive_operator, anon_sym_is,
       anon_sym_as, anon_sym_EQ_GT, anon_sym_when, anon_sym_AMP_AMP, anon_sym_PIPE_PIPE])]),
     (82124, 12, [(ACTIONS 3, 1, [anon_sym_SLASH_SLASH]), (ACTIONS 5, 1,
       [anon_sym_SLASH_STAR]), (ACTIONS 7, 1, [anon_sym_SLASH_SLASH_SLASH]), (ACTIONS 9, 1,
       [sym__block_comment]), (ACTIONS 11, 1, [sym__documentation_block_comment]), (ACTIONS 3506,
       1, [anon_sym_LPAREN]), (ACTIONS 3616, 1, [anon_sym_QMARK]), (STATE 1616, 1,
       [sym_parameter_type_list]), (STATE 1684, 1, [sym_nullable_type]), (STATE 1607, 2,
       [sym_comment, sym_documentation_comment]), (ACTIONS 2515, 11, [anon_sym_when,
       anon_sym_catch, anon_sym_with, anon_sym_Function, anon_sym_get, anon_sym_implements,
       anon_sym_operator, anon_sym_set, anon_sym_this, anon_sym_super, sym_identifier]), (ACTIONS
       2507, 12, [anon_sym_LBRACE, anon_sym_RBRACE, anon_sym_COMMA, anon_sym_RBRACK,
       anon_sym_COLON, anon_sym_RPAREN, anon_sym_GT, anon_sym_DOT, anon_sym_SEMI, anon_sym_EQ_GT,
       anon_sym_AMP_AMP, anon_sym_PIPE_PIPE])])]"

lemma small_run_585: "small_run 1605 82010 ts_small_parse_table_585 1608 82183"
  by (simp add: small_simps ts_small_parse_table_585_def)

definition ts_small_parse_table_586 :: "small_group list" where
  "ts_small_parse_table_586 = [
     (82183, 10, [(ACTIONS 3, 1, [anon_sym_SLASH_SLASH]), (ACTIONS 5, 1,
       [anon_sym_SLASH_STAR]), (ACTIONS 7, 1, [anon_sym_SLASH_SLASH_SLASH]), (ACTIONS 9, 1,
       [sym__block_comment]), (ACTIONS 11, 1, [sym__documentation_block_comment]), (ACTIONS 2564,
       1, [anon_sym_PIPE_PIPE]), (STATE 369, 1, [sym_logical_or_operator]), (STATE 1608, 3,
       [sym_comment, sym_documentation_comment, aux_sym_logical_or_expression_repeat1]), (ACTIONS
       1416, 6, [anon_sym_QMARK, anon_sym_LT, anon_sym_GT, anon_sym_PIPE, anon_sym_AMP,
       anon_sym_GT_GT]), (ACTIONS 1414, 18, [anon_sym_RBRACE, anon_sym_COMMA, anon_sym_RBRACK,
       anon_sym_COLON, anon_sym_RPAREN, anon_sym_QMARK_QMARK, sym_equality_operator,
       anon_sym_LT_EQ, anon_sym_GT_EQ, anon_sym_CARET, anon_sym_LT_LT, anon_sym_GT_GT_GT,
       sym__additive_operator, anon_sym_is, anon_sym_as, anon_sym_EQ_GT, anon_sym_when,
       anon_sym_AMP_AMP])]),
     (82238, 8, [(ACTIONS 3, 1, [anon_sym_SLASH_SLASH]), (ACTIONS 5, 1, [anon_sym_SLASH_STAR]),
       (ACTIONS 7, 1, [anon_sym_SLASH_SLASH_SLASH]), (ACTIONS 9, 1, [sym__block_comment]),
       (ACTIONS 11, 1, [sym__documentation_block_comment]), (STATE 1609, 2, [sym_comment,
       sym_documentation_comment]), (ACTIONS 2473, 8, [anon_sym_QMARK, anon_sym_LT, anon_sym_GT,
       anon_sym_PIPE, anon_sym_AMP, anon_sym_GT_GT, anon_sym_as, anon_sym_async]), (ACTIONS 2471,
       19, [anon_sym_LBRACE, anon_sym_COMMA, anon_sym_QMARK_QMARK, sym_equality_operator,
       anon_sym_LT_EQ, anon_sym_GT_EQ, anon_sym_CARET, anon_sym_LT_LT, anon_sym_GT_GT_GT,
       sym__additive_operator, anon_sym_is, anon_sym_DOT_DOT, anon_sym_QMARK_DOT_DOT,
       anon_sym_SEMI, anon_sym_EQ_GT, anon_sym_async_STAR, anon_sym_sync_STAR, anon_sym_AMP_AMP,
       anon_sym_PIPE_PIPE])]),
     (82289, 8, [(ACTIONS 3, 1, [anon_sym_SLASH_SLASH]), (ACTIONS 5, 1, [anon_sym_SLASH_STAR]),
       (ACTIONS 7, 1, [anon_sym_SLASH_SLASH_SLASH]), (ACTIONS 9, 1, [sym__block_comment]),
       (ACTIONS 11, 1, [sym__documentation_block_comment]), (STATE 1610, 2, [sym_comment,
       sym_documentation_comment]), (ACTIONS 1043, 4, [ts_builtin_sym_end, anon_sym_LPAREN,
       anon_sym_AT, sym_part_of_builtin]), (ACTIONS 1045, 23, [anon_sym_part, anon_sym_enum,
       anon_sym_final, anon_sym_inline, anon_sym_class, anon_sym_extension, sym_void_type,
       anon_sym_var, anon_sym_export, anon_sym_Function, anon_sym_get, anon_sym_import,
       anon_sym_interface, anon_sym_base, anon_sym_abstract, anon_sym_sealed, anon_sym_mixin,
       anon_sym_set, anon_sym_typedef, sym_const_builtin, anon_sym_late, anon_sym_external,
       sym_identifier])])]"

lemma small_run_586: "small_run 1608 82183 ts_small_parse_table_586 1611 82340"
  by (simp add: small_simps ts_small_parse_table_586_def)

definition ts_small_parse_table_587 :: "small_group list" where
  "ts_small_parse_table_587 = [
     (82340, 8, [(ACTIONS 3, 1, [anon_sym_SLASH_SLASH]), (ACTIONS 5, 1, [anon_sym_SLASH_STAR]),
       (ACTIONS 7, 1, [anon_sym_SLASH_SLASH_SLASH]), (ACTIONS 9, 1, [sym__block_comment]),
       (ACTIONS 11, 1, [sym__documentation_block_comment]), (STATE 1611, 2, [sym_comment,
       sym_documentation_comment]), (ACTIONS 3404, 3, [anon_sym_LPAREN, anon_sym_AT,
       sym_part_of_builtin]), (ACTIONS 3402, 24, [anon_sym_part, anon_sym_enum, anon_sym_final,
       anon_sym_inline, anon_sym_class, anon_sym_extension, sym_void_type, anon_sym_var,
       anon_sym_library, anon_sym_export, anon_sym_Function, anon_sym_get, anon_sym_import,
       anon_sym_interface, anon_sym_base, anon_sym_abstract, anon_sym_sealed, anon_sym_mixin,
       anon_sym_set, anon_sym_typedef, sym_const_builtin, anon_sym_late, anon_sym_external,
       sym_identifier])]),
     (82391, 8, [(ACTIONS 3, 1, [anon_sym_SLASH_SLASH]), (ACTIONS 5, 1, [anon_sym_SLASH_STAR]),
       (ACTIONS 7, 1, [anon_sym_SLASH_SLASH_SLASH]), (ACTIONS 9, 1, [sym__block_comment]),
       (ACTIONS 11, 1, [sym__documentation_block_comment]), (STATE 1612, 2, [sym_comment,
       sym_documentation_comment]), (ACTIONS 2624, 12, [anon_sym_EQ, anon_sym_when,
       anon_sym_catch, anon_sym_with, anon_sym_Function, anon_sym_get, anon_sym_implements,
       anon_sym_operator, anon_sym_set, anon_sym_this, anon_sym_super, sym_identifier]), (ACTIONS
       2622, 15, [anon_sym_LBRACE, anon_sym_RBRACE, anon_sym_COMMA, anon_sym_RBRACK,
       anon_sym_COLON, anon_sym_LPAREN, anon_sym_RPAREN, anon_sym_QMARK, anon_sym_LT,
       anon_sym_GT, anon_sym_DOT, anon_sym_SEMI, anon_sym_EQ_GT, anon_sym_AMP_AMP,
       anon_sym_PIPE_PIPE])]),
     (82442, 8, [(ACTIONS 3, 1, [anon_sym_SLASH_SLASH]), (ACTIONS 5, 1, [anon_sym_SLASH_STAR]),
       (ACTIONS 7, 1, [anon_sym_SLASH_SLASH_SLASH]), (ACTIONS 9, 1, [sym__block_comment]),
       (ACTIONS 11, 1, [sym__documentation_block_comment]), (STATE 1613, 2, [sym_comment,
       sym_documentation_comment]), (ACTIONS 3688, 4, [ts_builtin_sym_end, anon_sym_LPAREN,
       anon_sym_AT, sym_part_of_builtin]), (ACTIONS 3690, 23, [anon_sym_part, anon_sym_enum,
       anon_sym_final, anon_sym_inline, anon_sym_class, anon_sym_extension, sym_void_type,
       anon_sym_var, anon_sym_export, anon_sym_Function, anon_sym_get, anon_sym_import,
       anon_sym_interface, anon_sym_base, anon_sym_abstract, anon_sym_sealed, anon_sym_mixin,
       anon_sym_set, anon_sym_typedef, sym_const_builtin, anon_sym_late, anon_sym_external,
       sym_identifier])])]"

lemma small_run_587: "small_run 1611 82340 ts_small_parse_table_587 1614 82493"
  by (simp add: small_simps ts_small_parse_table_587_def)

definition ts_small_parse_table_588 :: "small_group list" where
  "ts_small_parse_table_588 = [
     (82493, 10, [(ACTIONS 3, 1, [anon_sym_SLASH_SLASH]), (ACTIONS 5, 1,
       [anon_sym_SLASH_STAR]), (ACTIONS 7, 1, [anon_sym_SLASH_SLASH_SLASH]), (ACTIONS 9, 1,
       [sym__block_comment]), (ACTIONS 11, 1, [sym__documentation_block_comment]), (ACTIONS 3692,
       1, [anon_sym_DOT]), (STATE 1612, 1, [sym__type_dot_identifier]), (STATE 1614, 2,
       [sym_comment, sym_documentation_comment]), (ACTIONS 1320, 10, [anon_sym_EQ, anon_sym_when,
       anon_sym_catch, anon_sym_with, anon_sym_Function, anon_sym_get, anon_sym_implements,
       anon_sym_this, anon_sym_super, sym_identifier]), (ACTIONS 2015, 14, [anon_sym_LBRACE,
       anon_sym_RBRACE, anon_sym_COMMA, anon_sym_RBRACK, anon_sym_COLON, anon_sym_LPAREN,
       anon_sym_RPAREN, anon_sym_QMARK, anon_sym_LT, anon_sym_GT, anon_sym_SEMI, anon_sym_EQ_GT,
       anon_sym_AMP_AMP, anon_sym_PIPE_PIPE])]),
     (82547, 8, [(ACTIONS 3, 1, [anon_sym_SLASH_SLASH]), (ACTIONS 5, 1, [anon_sym_SLASH_STAR]),
       (ACTIONS 7, 1, [anon_sym_SLASH_SLASH_SLASH]), (ACTIONS 9, 1, [sym__block_comment]),
       (ACTIONS 11, 1, [sym__documentation_block_comment]), (STATE 1615, 2, [sym_comment,
       sym_documentation_comment]), (ACTIONS 2728, 6, [anon_sym_QMARK, anon_sym_LT, anon_sym_GT,
       anon_sym_PIPE, anon_sym_AMP, anon_sym_GT_GT]), (ACTIONS 2726, 20, [anon_sym_RBRACE,
       anon_sym_COMMA, anon_sym_RBRACK, anon_sym_COLON, anon_sym_RPAREN, anon_sym_QMARK_QMARK,
       sym_equality_operator, anon_sym_LT_EQ, anon_sym_GT_EQ, anon_sym_CARET, anon_sym_LT_LT,
       anon_sym_GT_GT_GT, sym__additive_operator, anon_sym_is, anon_sym_as, anon_sym_EQ_GT,
       anon_sym_when, anon_sym_Function, anon_sym_AMP_AMP, anon_sym_PIPE_PIPE])]),
     (82597, 10, [(ACTIONS 3, 1, [anon_sym_SLASH_SLASH]), (ACTIONS 5, 1,
       [anon_sym_SLASH_STAR]), (ACTIONS 7, 1, [anon_sym_SLASH_SLASH_SLASH]), (ACTIONS 9, 1,
       [sym__block_comment]), (ACTIONS 11, 1, [sym__documentation_block_comment]), (ACTIONS 3623,
       1, [anon_sym_QMARK]), (STATE 1680, 1, [sym_nullable_type]), (STATE 1616, 2, [sym_comment,
       sym_documentation_comment]), (ACTIONS 2487, 11, [anon_sym_when, anon_sym_catch,
       anon_sym_with, anon_sym_Function, anon_sym_get, anon_sym_implements, anon_sym_operator,
       anon_sym_set, anon_sym_this, anon_sym_super, sym_identifier]), (ACTIONS 2479, 13,
       [anon_sym_LBRACE, anon_sym_RBRACE, anon_sym_COMMA, anon_sym_RBRACK, anon_sym_COLON,
       anon_sym_LPAREN, anon_sym_RPAREN, anon_sym_GT, anon_sym_DOT, anon_sym_SEMI,
       anon_sym_EQ_GT, anon_sym_AMP_AMP, anon_sym_PIPE_PIPE])])]"

lemma small_run_588: "small_run 1614 82493 ts_small_parse_table_588 1617 82651"
  by (simp add: small_simps ts_small_parse_table_588_def)

definition ts_small_parse_table_589 :: "small_group list" where
  "ts_small_parse_table_589 = [
     (82651, 9, [(ACTIONS 3, 1, [anon_sym_SLASH_SLASH]), (ACTIONS 5, 1, [anon_sym_SLASH_STAR]),
       (ACTIONS 7, 1, [anon_sym_SLASH_SLASH_SLASH]), (ACTIONS 9, 1, [sym__block_comment]),
       (ACTIONS 11, 1, [sym__documentation_block_comment]), (STATE 1653, 1,
       [aux_sym_bitwise_and_expression_repeat1]), (STATE 1617, 2, [sym_comment,
       sym_documentation_comment]), (ACTIONS 2620, 6, [anon_sym_QMARK, anon_sym_LT, anon_sym_GT,
       anon_sym_PIPE, anon_sym_AMP, anon_sym_GT_GT]), (ACTIONS 2618, 19, [anon_sym_RBRACE,
       anon_sym_COMMA, anon_sym_RBRACK, anon_sym_COLON, anon_sym_RPAREN, anon_sym_QMARK_QMARK,
       sym_equality_operator, anon_sym_LT_EQ, anon_sym_GT_EQ, anon_sym_CARET, anon_sym_LT_LT,
       anon_sym_GT_GT_GT, sym__additive_operator, anon_sym_is, anon_sym_as, anon_sym_EQ_GT,
       anon_sym_when, anon_sym_AMP_AMP, anon_sym_PIPE_PIPE])]),
     (82703, 8, [(ACTIONS 3, 1, [anon_sym_SLASH_SLASH]), (ACTIONS 5, 1, [anon_sym_SLASH_STAR]),
       (ACTIONS 7, 1, [anon_sym_SLASH_SLASH_SLASH]), (ACTIONS 9, 1, [sym__block_comment]),
       (ACTIONS 11, 1, [sym__documentation_block_comment]), (STATE 1618, 2, [sym_comment,
       sym_documentation_comment]), (ACTIONS 2778, 6, [anon_sym_QMARK, anon_sym_LT, anon_sym_GT,
       anon_sym_PIPE, anon_sym_AMP, anon_sym_GT_GT]), (ACTIONS 2776, 20, [anon_sym_RBRACE,
       anon_sym_COMMA, anon_sym_RBRACK, anon_sym_COLON, anon_sym_RPAREN, anon_sym_QMARK_QMARK,
       sym_equality_operator, anon_sym_LT_EQ, anon_sym_GT_EQ, anon_sym_CARET, anon_sym_LT_LT,
       anon_sym_GT_GT_GT, sym__additive_operator, anon_sym_is, anon_sym_as, anon_sym_EQ_GT,
       anon_sym_when, anon_sym_Function, anon_sym_AMP_AMP, anon_sym_PIPE_PIPE])]),
     (82753, 8, [(ACTIONS 3, 1, [anon_sym_SLASH_SLASH]), (ACTIONS 5, 1, [anon_sym_SLASH_STAR]),
       (ACTIONS 7, 1, [anon_sym_SLASH_SLASH_SLASH]), (ACTIONS 9, 1, [sym__block_comment]),
       (ACTIONS 11, 1, [sym__documentation_block_comment]), (STATE 1619, 2, [sym_comment,
       sym_documentation_comment]), (ACTIONS 2722, 6, [anon_sym_QMARK, anon_sym_LT, anon_sym_GT,
       anon_sym_PIPE, anon_sym_AMP, anon_sym_GT_GT]), (ACTIONS 2720, 20, [anon_sym_RBRACE,
       anon_sym_COMMA, anon_sym_RBRACK, anon_sym_COLON, anon_sym_RPAREN, anon_sym_QMARK_QMARK,
       sym_equality_operator, anon_sym_LT_EQ, anon_sym_GT_EQ, anon_sym_CARET, anon_sym_LT_LT,
       anon_sym_GT_GT_GT, sym__additive_operator, anon_sym_is, anon_sym_as, anon_sym_EQ_GT,
       anon_sym_when, anon_sym_Function, anon_sym_AMP_AMP, anon_sym_PIPE_PIPE])])]"

lemma small_run_589: "small_run 1617 82651 ts_small_parse_table_589 1620 82803"
  by (simp add: small_simps ts_small_parse_table_589_def)

definition ts_small_parse_table_590 :: "small_group list" where
  "ts_small_parse_table_590 = [
     (82803, 8, [(ACTIONS 3, 1, [anon_sym_SLASH_SLASH]), (ACTIONS 5, 1, [anon_sym_SLASH_STAR]),
       (ACTIONS 7, 1, [anon_sym_SLASH_SLASH_SLASH]), (ACTIONS 9, 1, [sym__block_comment]),
       (ACTIONS 11, 1, [sym__documentation_block_comment]), (STATE 1620, 2, [sym_comment,
       sym_documentation_comment]), (ACTIONS 2782, 6, [anon_sym_QMARK, anon_sym_LT, anon_sym_GT,
       anon_sym_PIPE, anon_sym_AMP, anon_sym_GT_GT]), (ACTIONS 2780, 20, [anon_sym_RBRACE,
       anon_sym_COMMA, anon_sym_RBRACK, anon_sym_COLON, anon_sym_RPAREN, anon_sym_QMARK_QMARK,
       sym_equality_operator, anon_sym_LT_EQ, anon_sym_GT_EQ, anon_sym_CARET, anon_sym_LT_LT,
       anon_sym_GT_GT_GT, sym__additive_operator, anon_sym_is, anon_sym_as, anon_sym_EQ_GT,
       anon_sym_when, anon_sym_Function, anon_sym_AMP_AMP, anon_sym_PIPE_PIPE])]),
     (82853, 8, [(ACTIONS 3, 1, [anon_sym_SLASH_SLASH]), (ACTIONS 5, 1, [anon_sym_SLASH_STAR]),
       (ACTIONS 7, 1, [anon_sym_SLASH_SLASH_SLASH]), (ACTIONS 9, 1, [sym__block_comment]),
       (ACTIONS 11, 1, [sym__documentation_block_comment]), (STATE 1621, 2, [sym_comment,
       sym_documentation_comment]), (ACTIONS 2801, 6, [anon_sym_QMARK, anon_sym_LT, anon_sym_GT,
       anon_sym_PIPE, anon_sym_AMP, anon_sym_GT_GT]), (ACTIONS 2799, 20, [anon_sym_RBRACE,
       anon_sym_COMMA, anon_sym_RBRACK, anon_sym_COLON, anon_sym_RPAREN, anon_sym_QMARK_QMARK,
       sym_equality_operator, anon_sym_LT_EQ, anon_sym_GT_EQ, anon_sym_CARET, anon_sym_LT_LT,
       anon_sym_GT_GT_GT, sym__additive_operator, anon_sym_is, anon_sym_as, anon_sym_EQ_GT,
       anon_sym_when, anon_sym_Function, anon_sym_AMP_AMP, anon_sym_PIPE_PIPE])]),
     (82903, 8, [(ACTIONS 3, 1, [anon_sym_SLASH_SLASH]), (ACTIONS 5, 1, [anon_sym_SLASH_STAR]),
       (ACTIONS 7, 1, [anon_sym_SLASH_SLASH_SLASH]), (ACTIONS 9, 1, [sym__block_comment]),
       (ACTIONS 11, 1, [sym__documentation_block_comment]), (STATE 1622, 2, [sym_comment,
       sym_documentation_comment]), (ACTIONS 2718, 6, [anon_sym_QMARK, anon_sym_LT, anon_sym_GT,
       anon_sym_PIPE, anon_sym_AMP, anon_sym_GT_GT]), (ACTIONS 2716, 20, [anon_sym_RBRACE,
       anon_sym_COMMA, anon_sym_RBRACK, anon_sym_COLON, anon_sym_RPAREN, anon_sym_QMARK_QMARK,
       sym_equality_operator, anon_sym_LT_EQ, anon_sym_GT_EQ, anon_sym_CARET, anon_sym_LT_LT,
       anon_sym_GT_GT_GT, sym__additive_operator, anon_sym_is, anon_sym_as, anon_sym_EQ_GT,
       anon_sym_when, anon_sym_Function, anon_sym_AMP_AMP, anon_sym_PIPE_PIPE])])]"

lemma small_run_590: "small_run 1620 82803 ts_small_parse_table_590 1623 82953"
  by (simp add: small_simps ts_small_parse_table_590_def)

definition ts_small_parse_table_591 :: "small_group list" where
  "ts_small_parse_table_591 = [
     (82953, 8, [(ACTIONS 3, 1, [anon_sym_SLASH_SLASH]), (ACTIONS 5, 1, [anon_sym_SLASH_STAR]),
       (ACTIONS 7, 1, [anon_sym_SLASH_SLASH_SLASH]), (ACTIONS 9, 1, [sym__block_comment]),
       (ACTIONS 11, 1, [sym__documentation_block_comment]), (STATE 1623, 2, [sym_comment,
       sym_documentation_comment]), (ACTIONS 2735, 6, [anon_sym_QMARK, anon_sym_LT, anon_sym_GT,
       anon_sym_PIPE, anon_sym_AMP, anon_sym_GT_GT]), (ACTIONS 2733, 20, [anon_sym_RBRACE,
       anon_sym_COMMA, anon_sym_RBRACK, anon_sym_COLON, anon_sym_RPAREN, anon_sym_QMARK_QMARK,
       sym_equality_operator, anon_sym_LT_EQ, anon_sym_GT_EQ, anon_sym_CARET, anon_sym_LT_LT,
       anon_sym_GT_GT_GT, sym__additive_operator, anon_sym_is, anon_sym_as, anon_sym_EQ_GT,
       anon_sym_when, anon_sym_Function, anon_sym_AMP_AMP, anon_sym_PIPE_PIPE])]),
     (83003, 8, [(ACTIONS 3, 1, [anon_sym_SLASH_SLASH]), (ACTIONS 5, 1, [anon_sym_SLASH_STAR]),
       (ACTIONS 7, 1, [anon_sym_SLASH_SLASH_SLASH]), (ACTIONS 9, 1, [sym__block_comment]),
       (ACTIONS 11, 1, [sym__documentation_block_comment]), (STATE 1624, 2, [sym_comment,
       sym_documentation_comment]), (ACTIONS 2714, 6, [anon_sym_QMARK, anon_sym_LT, anon_sym_GT,
       anon_sym_PIPE, anon_sym_AMP, anon_sym_GT_GT]), (ACTIONS 2712, 20, [anon_sym_RBRACE,
       anon_sym_COMMA, anon_sym_RBRACK, anon_sym_COLON, anon_sym_RPAREN, anon_sym_QMARK_QMARK,
       sym_equality_operator, anon_sym_LT_EQ, anon_sym_GT_EQ, anon_sym_CARET, anon_sym_LT_LT,
       anon_sym_GT_GT_GT, sym__additive_operator, anon_sym_is, anon_sym_as, anon_sym_EQ_GT,
       anon_sym_when, anon_sym_Function, anon_sym_AMP_AMP, anon_sym_PIPE_PIPE])]),
     (83053, 8, [(ACTIONS 3, 1, [anon_sym_SLASH_SLASH]), (ACTIONS 5, 1, [anon_sym_SLASH_STAR]),
       (ACTIONS 7, 1, [anon_sym_SLASH_SLASH_SLASH]), (ACTIONS 9, 1, [sym__block_comment]),
       (ACTIONS 11, 1, [sym__documentation_block_comment]), (STATE 1625, 2, [sym_comment,
       sym_documentation_comment]), (ACTIONS 2710, 11, [anon_sym_when, anon_sym_catch,
       anon_sym_with, anon_sym_Function, anon_sym_get, anon_sym_implements, anon_sym_operator,
       anon_sym_set, anon_sym_this, anon_sym_super, sym_identifier]), (ACTIONS 2708, 15,
       [anon_sym_LBRACE, anon_sym_RBRACE, anon_sym_COMMA, anon_sym_RBRACK, anon_sym_COLON,
       anon_sym_LPAREN, anon_sym_RPAREN, anon_sym_QMARK, anon_sym_LT, anon_sym_GT, anon_sym_DOT,
       anon_sym_SEMI, anon_sym_EQ_GT, anon_sym_AMP_AMP, anon_sym_PIPE_PIPE])])]"

lemma small_run_591: "small_run 1623 82953 ts_small_parse_table_591 1626 83103"
  by (simp add: small_simps ts_small_parse_table_591_def)

definition ts_small_parse_table_592 :: "small_group list" where
  "ts_small_parse_table_592 = [
     (83103, 9, [(ACTIONS 3, 1, [anon_sym_SLASH_SLASH]), (ACTIONS 5, 1, [anon_sym_SLASH_STAR]),
       (ACTIONS 7, 1, [anon_sym_SLASH_SLASH_SLASH]), (ACTIONS 9, 1, [sym__block_comment]),
       (ACTIONS 11, 1, [sym__documentation_block_comment]), (STATE 1654, 1,
       [aux_sym_bitwise_xor_expression_repeat1]), (STATE 1626, 2, [sym_comment,
       sym_documentation_comment]), (ACTIONS 2616, 6, [anon_sym_QMARK, anon_sym_LT, anon_sym_GT,
       anon_sym_PIPE, anon_sym_AMP, anon_sym_GT_GT]), (ACTIONS 2614, 19, [anon_sym_RBRACE,
       anon_sym_COMMA, anon_sym_RBRACK, anon_sym_COLON, anon_sym_RPAREN, anon_sym_QMARK_QMARK,
       sym_equality_operator, anon_sym_LT_EQ, anon_sym_GT_EQ, anon_sym_CARET, anon_sym_LT_LT,
       anon_sym_GT_GT_GT, sym__additive_operator, anon_sym_is, anon_sym_as, anon_sym_EQ_GT,
       anon_sym_when, anon_sym_AMP_AMP, anon_sym_PIPE_PIPE])]),
     (83155, 9, [(ACTIONS 3, 1, [anon_sym_SLASH_SLASH]), (ACTIONS 5, 1, [anon_sym_SLASH_STAR]),
       (ACTIONS 7, 1, [anon_sym_SLASH_SLASH_SLASH]), (ACTIONS 9, 1, [sym__block_comment]),
       (ACTIONS 11, 1, [sym__documentation_block_comment]), (ACTIONS 2548, 1,
       [anon_sym_Function]), (STATE 1627, 2, [sym_comment, sym_documentation_comment]), (ACTIONS
       2546, 6, [anon_sym_QMARK, anon_sym_LT, anon_sym_GT, anon_sym_PIPE, anon_sym_AMP,
       anon_sym_GT_GT]), (ACTIONS 2541, 19, [anon_sym_RBRACE, anon_sym_COMMA, anon_sym_RBRACK,
       anon_sym_COLON, anon_sym_RPAREN, anon_sym_QMARK_QMARK, sym_equality_operator,
       anon_sym_LT_EQ, anon_sym_GT_EQ, anon_sym_CARET, anon_sym_LT_LT, anon_sym_GT_GT_GT,
       sym__additive_operator, anon_sym_is, anon_sym_as, anon_sym_EQ_GT, anon_sym_when,
       anon_sym_AMP_AMP, anon_sym_PIPE_PIPE])]),
     (83207, 8, [(ACTIONS 3, 1, [anon_sym_SLASH_SLASH]), (ACTIONS 5, 1, [anon_sym_SLASH_STAR]),
       (ACTIONS 7, 1, [anon_sym_SLASH_SLASH_SLASH]), (ACTIONS 9, 1, [sym__block_comment]),
       (ACTIONS 11, 1, [sym__documentation_block_comment]), (STATE 1628, 2, [sym_comment,
       sym_documentation_comment]), (ACTIONS 2555, 6, [anon_sym_QMARK, anon_sym_LT, anon_sym_GT,
       anon_sym_PIPE, anon_sym_AMP, anon_sym_GT_GT]), (ACTIONS 2550, 20, [anon_sym_RBRACE,
       anon_sym_COMMA, anon_sym_RBRACK, anon_sym_COLON, anon_sym_RPAREN, anon_sym_QMARK_QMARK,
       sym_equality_operator, anon_sym_LT_EQ, anon_sym_GT_EQ, anon_sym_CARET, anon_sym_LT_LT,
       anon_sym_GT_GT_GT, sym__additive_operator, anon_sym_is, anon_sym_as, anon_sym_EQ_GT,
       anon_sym_when, anon_sym_Function, anon_sym_AMP_AMP, anon_sym_PIPE_PIPE])])]"

lemma small_run_592: "small_run 1626 83103 ts_small_parse_table_592 1629 83257"
  by (simp add: small_simps ts_small_parse_table_592_def)

definition ts_small_parse_table_593 :: "small_group list" where
  "ts_small_parse_table_593 = [
     (83257, 8, [(ACTIONS 3, 1, [anon_sym_SLASH_SLASH]), (ACTIONS 5, 1, [anon_sym_SLASH_STAR]),
       (ACTIONS 7, 1, [anon_sym_SLASH_SLASH_SLASH]), (ACTIONS 9, 1, [sym__block_comment]),
       (ACTIONS 11, 1, [sym__documentation_block_comment]), (STATE 1629, 2, [sym_comment,
       sym_documentation_comment]), (ACTIONS 2702, 6, [anon_sym_QMARK, anon_sym_LT, anon_sym_GT,
       anon_sym_PIPE, anon_sym_AMP, anon_sym_GT_GT]), (ACTIONS 2700, 20, [anon_sym_RBRACE,
       anon_sym_COMMA, anon_sym_RBRACK, anon_sym_COLON, anon_sym_RPAREN, anon_sym_QMARK_QMARK,
       sym_equality_operator, anon_sym_LT_EQ, anon_sym_GT_EQ, anon_sym_CARET, anon_sym_LT_LT,
       anon_sym_GT_GT_GT, sym__additive_operator, anon_sym_is, anon_sym_as, anon_sym_EQ_GT,
       anon_sym_when, anon_sym_Function, anon_sym_AMP_AMP, anon_sym_PIPE_PIPE])]),
     (83307, 9, [(ACTIONS 3, 1, [anon_sym_SLASH_SLASH]), (ACTIONS 5, 1, [anon_sym_SLASH_STAR]),
       (ACTIONS 7, 1, [anon_sym_SLASH_SLASH_SLASH]), (ACTIONS 9, 1, [sym__block_comment]),
       (ACTIONS 11, 1, [sym__documentation_block_comment]), (ACTIONS 3694, 1,
       [anon_sym_QMARK_QMARK]), (STATE 1630, 3, [aux_sym__if_null_expression, sym_comment,
       sym_documentation_comment]), (ACTIONS 2812, 9, [anon_sym_QMARK, anon_sym_LT, anon_sym_GT,
       anon_sym_PIPE, anon_sym_AMP, anon_sym_GT_GT, anon_sym_BANG, anon_sym_DOT,
       anon_sym_QMARK_DOT]), (ACTIONS 2807, 15, [anon_sym_LBRACK, anon_sym_LPAREN,
       sym_equality_operator, anon_sym_LT_EQ, anon_sym_GT_EQ, anon_sym_CARET, anon_sym_LT_LT,
       anon_sym_GT_GT_GT, sym__additive_operator, anon_sym_is, anon_sym_as, anon_sym_DOT_DOT,
       anon_sym_QMARK_DOT_DOT, anon_sym_AMP_AMP, anon_sym_PIPE_PIPE])]),
     (83359, 9, [(ACTIONS 3, 1, [anon_sym_SLASH_SLASH]), (ACTIONS 5, 1, [anon_sym_SLASH_STAR]),
       (ACTIONS 7, 1, [anon_sym_SLASH_SLASH_SLASH]), (ACTIONS 9, 1, [sym__block_comment]),
       (ACTIONS 11, 1, [sym__documentation_block_comment]), (ACTIONS 2766, 1,
       [anon_sym_Function]), (STATE 1631, 2, [sym_comment, sym_documentation_comment]), (ACTIONS
       2764, 6, [anon_sym_QMARK, anon_sym_LT, anon_sym_GT, anon_sym_PIPE, anon_sym_AMP,
       anon_sym_GT_GT]), (ACTIONS 2762, 19, [anon_sym_RBRACE, anon_sym_COMMA, anon_sym_RBRACK,
       anon_sym_COLON, anon_sym_RPAREN, anon_sym_QMARK_QMARK, sym_equality_operator,
       anon_sym_LT_EQ, anon_sym_GT_EQ, anon_sym_CARET, anon_sym_LT_LT, anon_sym_GT_GT_GT,
       sym__additive_operator, anon_sym_is, anon_sym_as, anon_sym_EQ_GT, anon_sym_when,
       anon_sym_AMP_AMP, anon_sym_PIPE_PIPE])])]"

lemma small_run_593: "small_run 1629 83257 ts_small_parse_table_593 1632 83411"
  by (simp add: small_simps ts_small_parse_table_593_def)

definition ts_small_parse_table_594 :: "small_group list" where
  "ts_small_parse_table_594 = [
     (83411, 8, [(ACTIONS 3, 1, [anon_sym_SLASH_SLASH]), (ACTIONS 5, 1, [anon_sym_SLASH_STAR]),
       (ACTIONS 7, 1, [anon_sym_SLASH_SLASH_SLASH]), (ACTIONS 9, 1, [sym__block_comment]),
       (ACTIONS 11, 1, [sym__documentation_block_comment]), (STATE 1632, 2, [sym_comment,
       sym_documentation_comment]), (ACTIONS 2770, 6, [anon_sym_QMARK, anon_sym_LT, anon_sym_GT,
       anon_sym_PIPE, anon_sym_AMP, anon_sym_GT_GT]), (ACTIONS 2768, 20, [anon_sym_RBRACE,
       anon_sym_COMMA, anon_sym_RBRACK, anon_sym_COLON, anon_sym_RPAREN, anon_sym_QMARK_QMARK,
       sym_equality_operator, anon_sym_LT_EQ, anon_sym_GT_EQ, anon_sym_CARET, anon_sym_LT_LT,
       anon_sym_GT_GT_GT, sym__additive_operator, anon_sym_is, anon_sym_as, anon_sym_EQ_GT,
       anon_sym_when, anon_sym_Function, anon_sym_AMP_AMP, anon_sym_PIPE_PIPE])]),
     (83461, 8, [(ACTIONS 3, 1, [anon_sym_SLASH_SLASH]), (ACTIONS 5, 1, [anon_sym_SLASH_STAR]),
       (ACTIONS 7, 1, [anon_sym_SLASH_SLASH_SLASH]), (ACTIONS 9, 1, [sym__block_comment]),
       (ACTIONS 11, 1, [sym__documentation_block_comment]), (STATE 1633, 2, [sym_comment,
       sym_documentation_comment]), (ACTIONS 2692, 6, [anon_sym_QMARK, anon_sym_LT, anon_sym_GT,
       anon_sym_PIPE, anon_sym_AMP, anon_sym_GT_GT]), (ACTIONS 2690, 20, [anon_sym_RBRACE,
       anon_sym_COMMA, anon_sym_RBRACK, anon_sym_COLON, anon_sym_RPAREN, anon_sym_QMARK_QMARK,
       sym_equality_operator, anon_sym_LT_EQ, anon_sym_GT_EQ, anon_sym_CARET, anon_sym_LT_LT,
       anon_sym_GT_GT_GT, sym__additive_operator, anon_sym_is, anon_sym_as, anon_sym_EQ_GT,
       anon_sym_when, anon_sym_Function, anon_sym_AMP_AMP, anon_sym_PIPE_PIPE])]),
     (83511, 8, [(ACTIONS 3, 1, [anon_sym_SLASH_SLASH]), (ACTIONS 5, 1, [anon_sym_SLASH_STAR]),
       (ACTIONS 7, 1, [anon_sym_SLASH_SLASH_SLASH]), (ACTIONS 9, 1, [sym__block_comment]),
       (ACTIONS 11, 1, [sym__documentation_block_comment]), (STATE 1634, 2, [sym_comment,
       sym_documentation_comment]), (ACTIONS 2743, 6, [anon_sym_QMARK, anon_sym_LT, anon_sym_GT,
       anon_sym_PIPE, anon_sym_AMP, anon_sym_GT_GT]), (ACTIONS 2741, 20, [anon_sym_RBRACE,
       anon_sym_COMMA, anon_sym_RBRACK, anon_sym_COLON, anon_sym_RPAREN, anon_sym_QMARK_QMARK,
       sym_equality_operator, anon_sym_LT_EQ, anon_sym_GT_EQ, anon_sym_CARET, anon_sym_LT_LT,
       anon_sym_GT_GT_GT, sym__additive_operator, anon_sym_is, anon_sym_as, anon_sym_EQ_GT,
       anon_sym_when, anon_sym_Function, anon_sym_AMP_AMP, anon_sym_PIPE_PIPE])])]"

lemma small_run_594: "small_run 1632 83411 ts_small_parse_table_594 1635 83561"
  by (simp add: small_simps ts_small_parse_table_594_def)

definition ts_small_parse_table_595 :: "small_group list" where
  "ts_small_parse_table_595 = [
     (83561, 8, [(ACTIONS 3, 1, [anon_sym_SLASH_SLASH]), (ACTIONS 5, 1, [anon_sym_SLASH_STAR]),
       (ACTIONS 7, 1, [anon_sym_SLASH_SLASH_SLASH]), (ACTIONS 9, 1, [sym__block_comment]),
       (ACTIONS 11, 1, [sym__documentation_block_comment]), (STATE 1635, 2, [sym_comment,
       sym_documentation_comment]), (ACTIONS 2572, 6, [anon_sym_QMARK, anon_sym_LT, anon_sym_GT,
       anon_sym_PIPE, anon_sym_AMP, anon_sym_GT_GT]), (ACTIONS 2567, 20, [anon_sym_RBRACE,
       anon_sym_COMMA, anon_sym_RBRACK, anon_sym_COLON, anon_sym_RPAREN, anon_sym_QMARK_QMARK,
       sym_equality_operator, anon_sym_LT_EQ, anon_sym_GT_EQ, anon_sym_CARET, anon_sym_LT_LT,
       anon_sym_GT_GT_GT, sym__additive_operator, anon_sym_is, anon_sym_as, anon_sym_EQ_GT,
       anon_sym_when, anon_sym_Function, anon_sym_AMP_AMP, anon_sym_PIPE_PIPE])]),
     (83611, 8, [(ACTIONS 3, 1, [anon_sym_SLASH_SLASH]), (ACTIONS 5, 1, [anon_sym_SLASH_STAR]),
       (ACTIONS 7, 1, [anon_sym_SLASH_SLASH_SLASH]), (ACTIONS 9, 1, [sym__block_comment]),
       (ACTIONS 11, 1, [sym__documentation_block_comment]), (STATE 1636, 2, [sym_comment,
       sym_documentation_comment]), (ACTIONS 2718, 11, [anon_sym_when, anon_sym_catch,
       anon_sym_with, anon_sym_Function, anon_sym_get, anon_sym_implements, anon_sym_operator,
       anon_sym_set, anon_sym_this, anon_sym_super, sym_identifier]), (ACTIONS 2716, 15,
       [anon_sym_LBRACE, anon_sym_RBRACE, anon_sym_LBRACK, anon_sym_COMMA, anon_sym_RBRACK,
       anon_sym_COLON, anon_sym_LPAREN, anon_sym_RPAREN, anon_sym_QMARK, anon_sym_GT,
       anon_sym_DOT, anon_sym_SEMI, anon_sym_EQ_GT, anon_sym_AMP_AMP, anon_sym_PIPE_PIPE])]),
     (83661, 8, [(ACTIONS 3, 1, [anon_sym_SLASH_SLASH]), (ACTIONS 5, 1, [anon_sym_SLASH_STAR]),
       (ACTIONS 7, 1, [anon_sym_SLASH_SLASH_SLASH]), (ACTIONS 9, 1, [sym__block_comment]),
       (ACTIONS 11, 1, [sym__documentation_block_comment]), (STATE 1637, 2, [sym_comment,
       sym_documentation_comment]), (ACTIONS 2684, 6, [anon_sym_QMARK, anon_sym_LT, anon_sym_GT,
       anon_sym_PIPE, anon_sym_AMP, anon_sym_GT_GT]), (ACTIONS 2682, 20, [anon_sym_RBRACE,
       anon_sym_COMMA, anon_sym_RBRACK, anon_sym_COLON, anon_sym_RPAREN, anon_sym_QMARK_QMARK,
       sym_equality_operator, anon_sym_LT_EQ, anon_sym_GT_EQ, anon_sym_CARET, anon_sym_LT_LT,
       anon_sym_GT_GT_GT, sym__additive_operator, anon_sym_is, anon_sym_as, anon_sym_EQ_GT,
       anon_sym_when, anon_sym_Function, anon_sym_AMP_AMP, anon_sym_PIPE_PIPE])])]"

lemma small_run_595: "small_run 1635 83561 ts_small_parse_table_595 1638 83711"
  by (simp add: small_simps ts_small_parse_table_595_def)

definition ts_small_parse_table_596 :: "small_group list" where
  "ts_small_parse_table_596 = [
     (83711, 8, [(ACTIONS 3, 1, [anon_sym_SLASH_SLASH]), (ACTIONS 5, 1, [anon_sym_SLASH_STAR]),
       (ACTIONS 7, 1, [anon_sym_SLASH_SLASH_SLASH]), (ACTIONS 9, 1, [sym__block_comment]),
       (ACTIONS 11, 1, [sym__documentation_block_comment]), (STATE 1638, 2, [sym_comment,
       sym_documentation_comment]), (ACTIONS 2680, 6, [anon_sym_QMARK, anon_sym_LT, anon_sym_GT,
       anon_sym_PIPE, anon_sym_AMP, anon_sym_GT_GT]), (ACTIONS 2678, 20, [anon_sym_RBRACE,
       anon_sym_COMMA, anon_sym_RBRACK, anon_sym_COLON, anon_sym_RPAREN, anon_sym_QMARK_QMARK,
       sym_equality_operator, anon_sym_LT_EQ, anon_sym_GT_EQ, anon_sym_CARET, anon_sym_LT_LT,
       anon_sym_GT_GT_GT, sym__additive_operator, anon_sym_is, anon_sym_as, anon_sym_EQ_GT,
       anon_sym_when, anon_sym_Function, anon_sym_AMP_AMP, anon_sym_PIPE_PIPE])]),
     (83761, 10, [(ACTIONS 3, 1, [anon_sym_SLASH_SLASH]), (ACTIONS 5, 1,
       [anon_sym_SLASH_STAR]), (ACTIONS 7, 1, [anon_sym_SLASH_SLASH_SLASH]), (ACTIONS 9, 1,
       [sym__block_comment]), (ACTIONS 11, 1, [sym__documentation_block_comment]), (ACTIONS 3697,
       1, [anon_sym_QMARK]), (STATE 1703, 1, [sym_nullable_type]), (STATE 1639, 2, [sym_comment,
       sym_documentation_comment]), (ACTIONS 2572, 11, [anon_sym_when, anon_sym_catch,
       anon_sym_with, anon_sym_Function, anon_sym_get, anon_sym_implements, anon_sym_operator,
       anon_sym_set, anon_sym_this, anon_sym_super, sym_identifier]), (ACTIONS 2567, 13,
       [anon_sym_LBRACE, anon_sym_RBRACE, anon_sym_COMMA, anon_sym_RBRACK, anon_sym_COLON,
       anon_sym_LPAREN, anon_sym_RPAREN, anon_sym_GT, anon_sym_DOT, anon_sym_SEMI,
       anon_sym_EQ_GT, anon_sym_AMP_AMP, anon_sym_PIPE_PIPE])]),
     (83815, 8, [(ACTIONS 3, 1, [anon_sym_SLASH_SLASH]), (ACTIONS 5, 1, [anon_sym_SLASH_STAR]),
       (ACTIONS 7, 1, [anon_sym_SLASH_SLASH_SLASH]), (ACTIONS 9, 1, [sym__block_comment]),
       (ACTIONS 11, 1, [sym__documentation_block_comment]), (STATE 1640, 2, [sym_comment,
       sym_documentation_comment]), (ACTIONS 2688, 6, [anon_sym_QMARK, anon_sym_LT, anon_sym_GT,
       anon_sym_PIPE, anon_sym_AMP, anon_sym_GT_GT]), (ACTIONS 2686, 20, [anon_sym_RBRACE,
       anon_sym_COMMA, anon_sym_RBRACK, anon_sym_COLON, anon_sym_RPAREN, anon_sym_QMARK_QMARK,
       sym_equality_operator, anon_sym_LT_EQ, anon_sym_GT_EQ, anon_sym_CARET, anon_sym_LT_LT,
       anon_sym_GT_GT_GT, sym__additive_operator, anon_sym_is, anon_sym_as, anon_sym_EQ_GT,
       anon_sym_when, anon_sym_Function, anon_sym_AMP_AMP, anon_sym_PIPE_PIPE])])]"

lemma small_run_596: "small_run 1638 83711 ts_small_parse_table_596 1641 83865"
  by (simp add: small_simps ts_small_parse_table_596_def)

definition ts_small_parse_table_597 :: "small_group list" where
  "ts_small_parse_table_597 = [
     (83865, 8, [(ACTIONS 3, 1, [anon_sym_SLASH_SLASH]), (ACTIONS 5, 1, [anon_sym_SLASH_STAR]),
       (ACTIONS 7, 1, [anon_sym_SLASH_SLASH_SLASH]), (ACTIONS 9, 1, [sym__block_comment]),
       (ACTIONS 11, 1, [sym__documentation_block_comment]), (STATE 1641, 2, [sym_comment,
       sym_documentation_comment]), (ACTIONS 2774, 6, [anon_sym_QMARK, anon_sym_LT, anon_sym_GT,
       anon_sym_PIPE, anon_sym_AMP, anon_sym_GT_GT]), (ACTIONS 2772, 20, [anon_sym_RBRACE,
       anon_sym_COMMA, anon_sym_RBRACK, anon_sym_COLON, anon_sym_RPAREN, anon_sym_QMARK_QMARK,
       sym_equality_operator, anon_sym_LT_EQ, anon_sym_GT_EQ, anon_sym_CARET, anon_sym_LT_LT,
       anon_sym_GT_GT_GT, sym__additive_operator, anon_sym_is, anon_sym_as, anon_sym_EQ_GT,
       anon_sym_when, anon_sym_Function, anon_sym_AMP_AMP, anon_sym_PIPE_PIPE])]),
     (83915, 8, [(ACTIONS 3, 1, [anon_sym_SLASH_SLASH]), (ACTIONS 5, 1, [anon_sym_SLASH_STAR]),
       (ACTIONS 7, 1, [anon_sym_SLASH_SLASH_SLASH]), (ACTIONS 9, 1, [sym__block_comment]),
       (ACTIONS 11, 1, [sym__documentation_block_comment]), (STATE 1642, 2, [sym_comment,
       sym_documentation_comment]), (ACTIONS 2688, 11, [anon_sym_when, anon_sym_catch,
       anon_sym_with, anon_sym_Function, anon_sym_get, anon_sym_implements, anon_sym_operator,
       anon_sym_set, anon_sym_this, anon_sym_super, sym_identifier]), (ACTIONS 2686, 15,
       [anon_sym_LBRACE, anon_sym_RBRACE, anon_sym_LBRACK, anon_sym_COMMA, anon_sym_RBRACK,
       anon_sym_COLON, anon_sym_LPAREN, anon_sym_RPAREN, anon_sym_QMARK, anon_sym_GT,
       anon_sym_DOT, anon_sym_SEMI, anon_sym_EQ_GT, anon_sym_AMP_AMP, anon_sym_PIPE_PIPE])]),
     (83965, 8, [(ACTIONS 3, 1, [anon_sym_SLASH_SLASH]), (ACTIONS 5, 1, [anon_sym_SLASH_STAR]),
       (ACTIONS 7, 1, [anon_sym_SLASH_SLASH_SLASH]), (ACTIONS 9, 1, [sym__block_comment]),
       (ACTIONS 11, 1, [sym__documentation_block_comment]), (STATE 1643, 2, [sym_comment,
       sym_documentation_comment]), (ACTIONS 2655, 6, [anon_sym_QMARK, anon_sym_LT, anon_sym_GT,
       anon_sym_PIPE, anon_sym_AMP, anon_sym_GT_GT]), (ACTIONS 2653, 20, [anon_sym_RBRACE,
       anon_sym_COMMA, anon_sym_RBRACK, anon_sym_COLON, anon_sym_RPAREN, anon_sym_QMARK_QMARK,
       sym_equality_operator, anon_sym_LT_EQ, anon_sym_GT_EQ, anon_sym_CARET, anon_sym_LT_LT,
       anon_sym_GT_GT_GT, sym__additive_operator, anon_sym_is, anon_sym_as, anon_sym_EQ_GT,
       anon_sym_when, anon_sym_Function, anon_sym_AMP_AMP, anon_sym_PIPE_PIPE])])]"

lemma small_run_597: "small_run 1641 83865 ts_small_parse_table_597 1644 84015"
  by (simp add: small_simps ts_small_parse_table_597_def)

definition ts_small_parse_table_598 :: "small_group list" where
  "ts_small_parse_table_598 = [
     (84015, 8, [(ACTIONS 3, 1, [anon_sym_SLASH_SLASH]), (ACTIONS 5, 1, [anon_sym_SLASH_STAR]),
       (ACTIONS 7, 1, [anon_sym_SLASH_SLASH_SLASH]), (ACTIONS 9, 1, [sym__block_comment]),
       (ACTIONS 11, 1, [sym__documentation_block_comment]), (STATE 1644, 2, [sym_comment,
       sym_documentation_comment]), (ACTIONS 2651, 6, [anon_sym_QMARK, anon_sym_LT, anon_sym_GT,
       anon_sym_PIPE, anon_sym_AMP, anon_sym_GT_GT]), (ACTIONS 2649, 20, [anon_sym_RBRACE,
       anon_sym_COMMA, anon_sym_RBRACK, anon_sym_COLON, anon_sym_RPAREN, anon_sym_QMARK_QMARK,
       sym_equality_operator, anon_sym_LT_EQ, anon_sym_GT_EQ, anon_sym_CARET, anon_sym_LT_LT,
       anon_sym_GT_GT_GT, sym__additive_operator, anon_sym_is, anon_sym_as, anon_sym_EQ_GT,
       anon_sym_when, anon_sym_Function, anon_sym_AMP_AMP, anon_sym_PIPE_PIPE])]),
     (84065, 8, [(ACTIONS 3, 1, [anon_sym_SLASH_SLASH]), (ACTIONS 5, 1, [anon_sym_SLASH_STAR]),
       (ACTIONS 7, 1, [anon_sym_SLASH_SLASH_SLASH]), (ACTIONS 9, 1, [sym__block_comment]),
       (ACTIONS 11, 1, [sym__documentation_block_comment]), (STATE 1645, 2, [sym_comment,
       sym_documentation_comment]), (ACTIONS 2624, 6, [anon_sym_QMARK, anon_sym_LT, anon_sym_GT,
       anon_sym_PIPE, anon_sym_AMP, anon_sym_GT_GT]), (ACTIONS 2622, 20, [anon_sym_RBRACE,
       anon_sym_COMMA, anon_sym_RBRACK, anon_sym_COLON, anon_sym_RPAREN, anon_sym_QMARK_QMARK,
       sym_equality_operator, anon_sym_LT_EQ, anon_sym_GT_EQ, anon_sym_CARET, anon_sym_LT_LT,
       anon_sym_GT_GT_GT, sym__additive_operator, anon_sym_is, anon_sym_as, anon_sym_EQ_GT,
       anon_sym_when, anon_sym_Function, anon_sym_AMP_AMP, anon_sym_PIPE_PIPE])]),
     (84115, 8, [(ACTIONS 3, 1, [anon_sym_SLASH_SLASH]), (ACTIONS 5, 1, [anon_sym_SLASH_STAR]),
       (ACTIONS 7, 1, [anon_sym_SLASH_SLASH_SLASH]), (ACTIONS 9, 1, [sym__block_comment]),
       (ACTIONS 11, 1, [sym__documentation_block_comment]), (STATE 1646, 2, [sym_comment,
       sym_documentation_comment]), (ACTIONS 2743, 11, [anon_sym_when, anon_sym_catch,
       anon_sym_with, anon_sym_Function, anon_sym_get, anon_sym_implements, anon_sym_operator,
       anon_sym_set, anon_sym_this, anon_sym_super, sym_identifier]), (ACTIONS 2741, 15,
       [anon_sym_LBRACE, anon_sym_RBRACE, anon_sym_LBRACK, anon_sym_COMMA, anon_sym_RBRACK,
       anon_sym_COLON, anon_sym_LPAREN, anon_sym_RPAREN, anon_sym_QMARK, anon_sym_GT,
       anon_sym_DOT, anon_sym_SEMI, anon_sym_EQ_GT, anon_sym_AMP_AMP, anon_sym_PIPE_PIPE])])]"

lemma small_run_598: "small_run 1644 84015 ts_small_parse_table_598 1647 84165"
  by (simp add: small_simps ts_small_parse_table_598_def)

definition ts_small_parse_table_599 :: "small_group list" where
  "ts_small_parse_table_599 = [
     (84165, 8, [(ACTIONS 3, 1, [anon_sym_SLASH_SLASH]), (ACTIONS 5, 1, [anon_sym_SLASH_STAR]),
       (ACTIONS 7, 1, [anon_sym_SLASH_SLASH_SLASH]), (ACTIONS 9, 1, [sym__block_comment]),
       (ACTIONS 11, 1, [sym__documentation_block_comment]), (STATE 1647, 2, [sym_comment,
       sym_documentation_comment]), (ACTIONS 2487, 6, [anon_sym_QMARK, anon_sym_LT, anon_sym_GT,
       anon_sym_PIPE, anon_sym_AMP, anon_sym_GT_GT]), (ACTIONS 2479, 20, [anon_sym_RBRACE,
       anon_sym_COMMA, anon_sym_RBRACK, anon_sym_COLON, anon_sym_RPAREN, anon_sym_QMARK_QMARK,
       sym_equality_operator, anon_sym_LT_EQ, anon_sym_GT_EQ, anon_sym_CARET, anon_sym_LT_LT,
       anon_sym_GT_GT_GT, sym__additive_operator, anon_sym_is, anon_sym_as, anon_sym_EQ_GT,
       anon_sym_when, anon_sym_Function, anon_sym_AMP_AMP, anon_sym_PIPE_PIPE])]),
     (84215, 10, [(ACTIONS 3, 1, [anon_sym_SLASH_SLASH]), (ACTIONS 5, 1,
       [anon_sym_SLASH_STAR]), (ACTIONS 7, 1, [anon_sym_SLASH_SLASH_SLASH]), (ACTIONS 9, 1,
       [sym__block_comment]), (ACTIONS 11, 1, [sym__documentation_block_comment]), (ACTIONS 3665,
       1, [anon_sym_QMARK]), (STATE 1711, 1, [sym_nullable_type]), (STATE 1648, 2, [sym_comment,
       sym_documentation_comment]), (ACTIONS 2546, 5, [anon_sym_LT, anon_sym_GT, anon_sym_PIPE,
       anon_sym_AMP, anon_sym_GT_GT]), (ACTIONS 2541, 19, [anon_sym_RBRACE, anon_sym_COMMA,
       anon_sym_RBRACK, anon_sym_COLON, anon_sym_RPAREN, anon_sym_QMARK_QMARK,
       sym_equality_operator, anon_sym_LT_EQ, anon_sym_GT_EQ, anon_sym_CARET, anon_sym_LT_LT,
       anon_sym_GT_GT_GT, sym__additive_operator, anon_sym_is, anon_sym_as, anon_sym_EQ_GT,
       anon_sym_when, anon_sym_AMP_AMP, anon_sym_PIPE_PIPE])]),
     (84269, 8, [(ACTIONS 3, 1, [anon_sym_SLASH_SLASH]), (ACTIONS 5, 1, [anon_sym_SLASH_STAR]),
       (ACTIONS 7, 1, [anon_sym_SLASH_SLASH_SLASH]), (ACTIONS 9, 1, [sym__block_comment]),
       (ACTIONS 11, 1, [sym__documentation_block_comment]), (STATE 1649, 2, [sym_comment,
       sym_documentation_comment]), (ACTIONS 2805, 6, [anon_sym_QMARK, anon_sym_LT, anon_sym_GT,
       anon_sym_PIPE, anon_sym_AMP, anon_sym_GT_GT]), (ACTIONS 2803, 20, [anon_sym_RBRACE,
       anon_sym_COMMA, anon_sym_RBRACK, anon_sym_COLON, anon_sym_RPAREN, anon_sym_QMARK_QMARK,
       sym_equality_operator, anon_sym_LT_EQ, anon_sym_GT_EQ, anon_sym_CARET, anon_sym_LT_LT,
       anon_sym_GT_GT_GT, sym__additive_operator, anon_sym_is, anon_sym_as, anon_sym_EQ_GT,
       anon_sym_when, anon_sym_Function, anon_sym_AMP_AMP, anon_sym_PIPE_PIPE])])]"

lemma small_run_599: "small_run 1647 84165 ts_small_parse_table_599 1650 84319"
  by (simp add: small_simps ts_small_parse_table_599_def)

definition ts_small_parse_table_600 :: "small_group list" where
  "ts_small_parse_table_600 = [
     (84319, 8, [(ACTIONS 3, 1, [anon_sym_SLASH_SLASH]), (ACTIONS 5, 1, [anon_sym_SLASH_STAR]),
       (ACTIONS 7, 1, [anon_sym_SLASH_SLASH_SLASH]), (ACTIONS 9, 1, [sym__block_comment]),
       (ACTIONS 11, 1, [sym__documentation_block_comment]), (STATE 1650, 2, [sym_comment,
       sym_documentation_comment]), (ACTIONS 2774, 11, [anon_sym_EQ, anon_sym_when,
       anon_sym_catch, anon_sym_with, anon_sym_Function, anon_sym_get, anon_sym_implements,
       anon_sym_set, anon_sym_this, anon_sym_super, sym_identifier]), (ACTIONS 2772, 15,
       [anon_sym_LBRACE, anon_sym_RBRACE, anon_sym_COMMA, anon_sym_RBRACK, anon_sym_COLON,
       anon_sym_LPAREN, anon_sym_RPAREN, anon_sym_QMARK, anon_sym_LT, anon_sym_GT, anon_sym_DOT,
       anon_sym_SEMI, anon_sym_EQ_GT, anon_sym_AMP_AMP, anon_sym_PIPE_PIPE])]),
     (84369, 8, [(ACTIONS 3, 1, [anon_sym_SLASH_SLASH]), (ACTIONS 5, 1, [anon_sym_SLASH_STAR]),
       (ACTIONS 7, 1, [anon_sym_SLASH_SLASH_SLASH]), (ACTIONS 9, 1, [sym__block_comment]),
       (ACTIONS 11, 1, [sym__documentation_block_comment]), (STATE 1651, 2, [sym_comment,
       sym_documentation_comment]), (ACTIONS 2644, 6, [anon_sym_QMARK, anon_sym_LT, anon_sym_GT,
       anon_sym_PIPE, anon_sym_AMP, anon_sym_GT_GT]), (ACTIONS 2642, 20, [anon_sym_RBRACE,
       anon_sym_COMMA, anon_sym_RBRACK, anon_sym_COLON, anon_sym_RPAREN, anon_sym_QMARK_QMARK,
       sym_equality_operator, anon_sym_LT_EQ, anon_sym_GT_EQ, anon_sym_CARET, anon_sym_LT_LT,
       anon_sym_GT_GT_GT, sym__additive_operator, anon_sym_is, anon_sym_as, anon_sym_EQ_GT,
       anon_sym_when, anon_sym_Function, anon_sym_AMP_AMP, anon_sym_PIPE_PIPE])]),
     (84419, 8, [(ACTIONS 3, 1, [anon_sym_SLASH_SLASH]), (ACTIONS 5, 1, [anon_sym_SLASH_STAR]),
       (ACTIONS 7, 1, [anon_sym_SLASH_SLASH_SLASH]), (ACTIONS 9, 1, [sym__block_comment]),
       (ACTIONS 11, 1, [sym__documentation_block_comment]), (STATE 1652, 2, [sym_comment,
       sym_documentation_comment]), (ACTIONS 2608, 6, [anon_sym_QMARK, anon_sym_LT, anon_sym_GT,
       anon_sym_PIPE, anon_sym_AMP, anon_sym_GT_GT]), (ACTIONS 2606, 20, [anon_sym_RBRACE,
       anon_sym_COMMA, anon_sym_RBRACK, anon_sym_COLON, anon_sym_RPAREN, anon_sym_QMARK_QMARK,
       sym_equality_operator, anon_sym_LT_EQ, anon_sym_GT_EQ, anon_sym_CARET, anon_sym_LT_LT,
       anon_sym_GT_GT_GT, sym__additive_operator, anon_sym_is, anon_sym_as, anon_sym_EQ_GT,
       anon_sym_when, anon_sym_Function, anon_sym_AMP_AMP, anon_sym_PIPE_PIPE])])]"

lemma small_run_600: "small_run 1650 84319 ts_small_parse_table_600 1653 84469"
  by (simp add: small_simps ts_small_parse_table_600_def)

definition ts_small_parse_table_601 :: "small_group list" where
  "ts_small_parse_table_601 = [
     (84469, 9, [(ACTIONS 3, 1, [anon_sym_SLASH_SLASH]), (ACTIONS 5, 1, [anon_sym_SLASH_STAR]),
       (ACTIONS 7, 1, [anon_sym_SLASH_SLASH_SLASH]), (ACTIONS 9, 1, [sym__block_comment]),
       (ACTIONS 11, 1, [sym__documentation_block_comment]), (ACTIONS 3700, 1, [anon_sym_AMP]),
       (STATE 1653, 3, [sym_comment, sym_documentation_comment,
       aux_sym_bitwise_and_expression_repeat1]), (ACTIONS 1408, 5, [anon_sym_QMARK, anon_sym_LT,
       anon_sym_GT, anon_sym_PIPE, anon_sym_GT_GT]), (ACTIONS 1406, 19, [anon_sym_RBRACE,
       anon_sym_COMMA, anon_sym_RBRACK, anon_sym_COLON, anon_sym_RPAREN, anon_sym_QMARK_QMARK,
       sym_equality_operator, anon_sym_LT_EQ, anon_sym_GT_EQ, anon_sym_CARET, anon_sym_LT_LT,
       anon_sym_GT_GT_GT, sym__additive_operator, anon_sym_is, anon_sym_as, anon_sym_EQ_GT,
       anon_sym_when, anon_sym_AMP_AMP, anon_sym_PIPE_PIPE])]),
     (84521, 9, [(ACTIONS 3, 1, [anon_sym_SLASH_SLASH]), (ACTIONS 5, 1, [anon_sym_SLASH_STAR]),
       (ACTIONS 7, 1, [anon_sym_SLASH_SLASH_SLASH]), (ACTIONS 9, 1, [sym__block_comment]),
       (ACTIONS 11, 1, [sym__documentation_block_comment]), (ACTIONS 3703, 1, [anon_sym_CARET]),
       (STATE 1654, 3, [sym_comment, sym_documentation_comment,
       aux_sym_bitwise_xor_expression_repeat1]), (ACTIONS 1397, 6, [anon_sym_QMARK, anon_sym_LT,
       anon_sym_GT, anon_sym_PIPE, anon_sym_AMP, anon_sym_GT_GT]), (ACTIONS 1395, 18,
       [anon_sym_RBRACE, anon_sym_COMMA, anon_sym_RBRACK, anon_sym_COLON, anon_sym_RPAREN,
       anon_sym_QMARK_QMARK, sym_equality_operator, anon_sym_LT_EQ, anon_sym_GT_EQ,
       anon_sym_LT_LT, anon_sym_GT_GT_GT, sym__additive_operator, anon_sym_is, anon_sym_as,
       anon_sym_EQ_GT, anon_sym_when, anon_sym_AMP_AMP, anon_sym_PIPE_PIPE])]),
     (84573, 9, [(ACTIONS 3, 1, [anon_sym_SLASH_SLASH]), (ACTIONS 5, 1, [anon_sym_SLASH_STAR]),
       (ACTIONS 7, 1, [anon_sym_SLASH_SLASH_SLASH]), (ACTIONS 9, 1, [sym__block_comment]),
       (ACTIONS 11, 1, [sym__documentation_block_comment]), (ACTIONS 3706, 1, [anon_sym_PIPE]),
       (STATE 1655, 3, [sym_comment, sym_documentation_comment,
       aux_sym_bitwise_or_expression_repeat1]), (ACTIONS 1420, 5, [anon_sym_QMARK, anon_sym_LT,
       anon_sym_GT, anon_sym_AMP, anon_sym_GT_GT]), (ACTIONS 1418, 19, [anon_sym_RBRACE,
       anon_sym_COMMA, anon_sym_RBRACK, anon_sym_COLON, anon_sym_RPAREN, anon_sym_QMARK_QMARK,
       sym_equality_operator, anon_sym_LT_EQ, anon_sym_GT_EQ, anon_sym_CARET, anon_sym_LT_LT,
       anon_sym_GT_GT_GT, sym__additive_operator, anon_sym_is, anon_sym_as, anon_sym_EQ_GT,
       anon_sym_when, anon_sym_AMP_AMP, anon_sym_PIPE_PIPE])])]"

lemma small_run_601: "small_run 1653 84469 ts_small_parse_table_601 1656 84625"
  by (simp add: small_simps ts_small_parse_table_601_def)

definition ts_small_parse_table_602 :: "small_group list" where
  "ts_small_parse_table_602 = [
     (84625, 9, [(ACTIONS 3, 1, [anon_sym_SLASH_SLASH]), (ACTIONS 5, 1, [anon_sym_SLASH_STAR]),
       (ACTIONS 7, 1, [anon_sym_SLASH_SLASH_SLASH]), (ACTIONS 9, 1, [sym__block_comment]),
       (ACTIONS 11, 1, [sym__documentation_block_comment]), (ACTIONS 3709, 1, [anon_sym_AMP]),
       (STATE 1656, 3, [sym_comment, sym_documentation_comment,
       aux_sym_bitwise_and_expression_repeat1]), (ACTIONS 1408, 8, [anon_sym_QMARK, anon_sym_LT,
       anon_sym_GT, anon_sym_PIPE, anon_sym_GT_GT, anon_sym_BANG, anon_sym_DOT,
       anon_sym_QMARK_DOT]), (ACTIONS 1406, 16, [anon_sym_LBRACK, anon_sym_LPAREN,
       anon_sym_QMARK_QMARK, sym_equality_operator, anon_sym_LT_EQ, anon_sym_GT_EQ,
       anon_sym_CARET, anon_sym_LT_LT, anon_sym_GT_GT_GT, sym__additive_operator, anon_sym_is,
       anon_sym_as, anon_sym_DOT_DOT, anon_sym_QMARK_DOT_DOT, anon_sym_AMP_AMP,
       anon_sym_PIPE_PIPE])]),
     (84677, 9, [(ACTIONS 3, 1, [anon_sym_SLASH_SLASH]), (ACTIONS 5, 1, [anon_sym_SLASH_STAR]),
       (ACTIONS 7, 1, [anon_sym_SLASH_SLASH_SLASH]), (ACTIONS 9, 1, [sym__block_comment]),
       (ACTIONS 11, 1, [sym__documentation_block_comment]), (ACTIONS 3712, 1, [anon_sym_CARET]),
       (STATE 1657, 3, [sym_comment, sym_documentation_comment,
       aux_sym_bitwise_xor_expression_repeat1]), (ACTIONS 1397, 9, [anon_sym_QMARK, anon_sym_LT,
       anon_sym_GT, anon_sym_PIPE, anon_sym_AMP, anon_sym_GT_GT, anon_sym_BANG, anon_sym_DOT,
       anon_sym_QMARK_DOT]), (ACTIONS 1395, 15, [anon_sym_LBRACK, anon_sym_LPAREN,
       anon_sym_QMARK_QMARK, sym_equality_operator, anon_sym_LT_EQ, anon_sym_GT_EQ,
       anon_sym_LT_LT, anon_sym_GT_GT_GT, sym__additive_operator, anon_sym_is, anon_sym_as,
       anon_sym_DOT_DOT, anon_sym_QMARK_DOT_DOT, anon_sym_AMP_AMP, anon_sym_PIPE_PIPE])]),
     (84729, 9, [(ACTIONS 3, 1, [anon_sym_SLASH_SLASH]), (ACTIONS 5, 1, [anon_sym_SLASH_STAR]),
       (ACTIONS 7, 1, [anon_sym_SLASH_SLASH_SLASH]), (ACTIONS 9, 1, [sym__block_comment]),
       (ACTIONS 11, 1, [sym__documentation_block_comment]), (ACTIONS 3715, 1, [anon_sym_PIPE]),
       (STATE 1658, 3, [sym_comment, sym_documentation_comment,
       aux_sym_bitwise_or_expression_repeat1]), (ACTIONS 1420, 8, [anon_sym_QMARK, anon_sym_LT,
       anon_sym_GT, anon_sym_AMP, anon_sym_GT_GT, anon_sym_BANG, anon_sym_DOT,
       anon_sym_QMARK_DOT]), (ACTIONS 1418, 16, [anon_sym_LBRACK, anon_sym_LPAREN,
       anon_sym_QMARK_QMARK, sym_equality_operator, anon_sym_LT_EQ, anon_sym_GT_EQ,
       anon_sym_CARET, anon_sym_LT_LT, anon_sym_GT_GT_GT, sym__additive_operator, anon_sym_is,
       anon_sym_as, anon_sym_DOT_DOT, anon_sym_QMARK_DOT_DOT, anon_sym_AMP_AMP,
       anon_sym_PIPE_PIPE])])]"

lemma small_run_602: "small_run 1656 84625 ts_small_parse_table_602 1659 84781"
  by (simp add: small_simps ts_small_parse_table_602_def)

definition ts_small_parse_table_603 :: "small_group list" where
  "ts_small_parse_table_603 = [
     (84781, 9, [(ACTIONS 3, 1, [anon_sym_SLASH_SLASH]), (ACTIONS 5, 1, [anon_sym_SLASH_STAR]),
       (ACTIONS 7, 1, [anon_sym_SLASH_SLASH_SLASH]), (ACTIONS 9, 1, [sym__block_comment]),
       (ACTIONS 11, 1, [sym__documentation_block_comment]), (ACTIONS 3718, 1,
       [anon_sym_QMARK_QMARK]), (STATE 1659, 3, [aux_sym__if_null_expression, sym_comment,
       sym_documentation_comment]), (ACTIONS 2812, 6, [anon_sym_QMARK, anon_sym_LT, anon_sym_GT,
       anon_sym_PIPE, anon_sym_AMP, anon_sym_GT_GT]), (ACTIONS 2807, 18, [anon_sym_RBRACE,
       anon_sym_COMMA, anon_sym_RBRACK, anon_sym_COLON, anon_sym_RPAREN, sym_equality_operator,
       anon_sym_LT_EQ, anon_sym_GT_EQ, anon_sym_CARET, anon_sym_LT_LT, anon_sym_GT_GT_GT,
       sym__additive_operator, anon_sym_is, anon_sym_as, anon_sym_EQ_GT, anon_sym_when,
       anon_sym_AMP_AMP, anon_sym_PIPE_PIPE])]),
     (84833, 9, [(ACTIONS 3, 1, [anon_sym_SLASH_SLASH]), (ACTIONS 5, 1, [anon_sym_SLASH_STAR]),
       (ACTIONS 7, 1, [anon_sym_SLASH_SLASH_SLASH]), (ACTIONS 9, 1, [sym__block_comment]),
       (ACTIONS 11, 1, [sym__documentation_block_comment]), (STATE 1655, 1,
       [aux_sym_bitwise_or_expression_repeat1]), (STATE 1660, 2, [sym_comment,
       sym_documentation_comment]), (ACTIONS 2612, 6, [anon_sym_QMARK, anon_sym_LT, anon_sym_GT,
       anon_sym_PIPE, anon_sym_AMP, anon_sym_GT_GT]), (ACTIONS 2610, 19, [anon_sym_RBRACE,
       anon_sym_COMMA, anon_sym_RBRACK, anon_sym_COLON, anon_sym_RPAREN, anon_sym_QMARK_QMARK,
       sym_equality_operator, anon_sym_LT_EQ, anon_sym_GT_EQ, anon_sym_CARET, anon_sym_LT_LT,
       anon_sym_GT_GT_GT, sym__additive_operator, anon_sym_is, anon_sym_as, anon_sym_EQ_GT,
       anon_sym_when, anon_sym_AMP_AMP, anon_sym_PIPE_PIPE])]),
     (84885, 9, [(ACTIONS 3, 1, [anon_sym_SLASH_SLASH]), (ACTIONS 5, 1, [anon_sym_SLASH_STAR]),
       (ACTIONS 7, 1, [anon_sym_SLASH_SLASH_SLASH]), (ACTIONS 9, 1, [sym__block_comment]),
       (ACTIONS 11, 1, [sym__documentation_block_comment]), (STATE 1659, 1,
       [aux_sym__if_null_expression]), (STATE 1661, 2, [sym_comment, sym_documentation_comment]),
       (ACTIONS 2751, 6, [anon_sym_QMARK, anon_sym_LT, anon_sym_GT, anon_sym_PIPE, anon_sym_AMP,
       anon_sym_GT_GT]), (ACTIONS 2749, 19, [anon_sym_RBRACE, anon_sym_COMMA, anon_sym_RBRACK,
       anon_sym_COLON, anon_sym_RPAREN, anon_sym_QMARK_QMARK, sym_equality_operator,
       anon_sym_LT_EQ, anon_sym_GT_EQ, anon_sym_CARET, anon_sym_LT_LT, anon_sym_GT_GT_GT,
       sym__additive_operator, anon_sym_is, anon_sym_as, anon_sym_EQ_GT, anon_sym_when,
       anon_sym_AMP_AMP, anon_sym_PIPE_PIPE])])]"

lemma small_run_603: "small_run 1659 84781 ts_small_parse_table_603 1662 84937"
  by (simp add: small_simps ts_small_parse_table_603_def)

definition ts_small_parse_table_604 :: "small_group list" where
  "ts_small_parse_table_604 = [
     (84937, 9, [(ACTIONS 3, 1, [anon_sym_SLASH_SLASH]), (ACTIONS 5, 1, [anon_sym_SLASH_STAR]),
       (ACTIONS 7, 1, [anon_sym_SLASH_SLASH_SLASH]), (ACTIONS 9, 1, [sym__block_comment]),
       (ACTIONS 11, 1, [sym__documentation_block_comment]), (STATE 1630, 1,
       [aux_sym__if_null_expression]), (STATE 1662, 2, [sym_comment, sym_documentation_comment]),
       (ACTIONS 2751, 9, [anon_sym_QMARK, anon_sym_LT, anon_sym_GT, anon_sym_PIPE, anon_sym_AMP,
       anon_sym_GT_GT, anon_sym_BANG, anon_sym_DOT, anon_sym_QMARK_DOT]), (ACTIONS 2749, 16,
       [anon_sym_LBRACK, anon_sym_LPAREN, anon_sym_QMARK_QMARK, sym_equality_operator,
       anon_sym_LT_EQ, anon_sym_GT_EQ, anon_sym_CARET, anon_sym_LT_LT, anon_sym_GT_GT_GT,
       sym__additive_operator, anon_sym_is, anon_sym_as, anon_sym_DOT_DOT,
       anon_sym_QMARK_DOT_DOT, anon_sym_AMP_AMP, anon_sym_PIPE_PIPE])]),
     (84989, 9, [(ACTIONS 3, 1, [anon_sym_SLASH_SLASH]), (ACTIONS 5, 1, [anon_sym_SLASH_STAR]),
       (ACTIONS 7, 1, [anon_sym_SLASH_SLASH_SLASH]), (ACTIONS 9, 1, [sym__block_comment]),
       (ACTIONS 11, 1, [sym__documentation_block_comment]), (STATE 1658, 1,
       [aux_sym_bitwise_or_expression_repeat1]), (STATE 1663, 2, [sym_comment,
       sym_documentation_comment]), (ACTIONS 2612, 9, [anon_sym_QMARK, anon_sym_LT, anon_sym_GT,
       anon_sym_PIPE, anon_sym_AMP, anon_sym_GT_GT, anon_sym_BANG, anon_sym_DOT,
       anon_sym_QMARK_DOT]), (ACTIONS 2610, 16, [anon_sym_LBRACK, anon_sym_LPAREN,
       anon_sym_QMARK_QMARK, sym_equality_operator, anon_sym_LT_EQ, anon_sym_GT_EQ,
       anon_sym_CARET, anon_sym_LT_LT, anon_sym_GT_GT_GT, sym__additive_operator, anon_sym_is,
       anon_sym_as, anon_sym_DOT_DOT, anon_sym_QMARK_DOT_DOT, anon_sym_AMP_AMP,
       anon_sym_PIPE_PIPE])]),
     (85041, 10, [(ACTIONS 3, 1, [anon_sym_SLASH_SLASH]), (ACTIONS 5, 1,
       [anon_sym_SLASH_STAR]), (ACTIONS 7, 1, [anon_sym_SLASH_SLASH_SLASH]), (ACTIONS 9, 1,
       [sym__block_comment]), (ACTIONS 11, 1, [sym__documentation_block_comment]), (ACTIONS 2154,
       1, [anon_sym_QMARK]), (STATE 1721, 1, [sym_nullable_type]), (STATE 1664, 2, [sym_comment,
       sym_documentation_comment]), (ACTIONS 2555, 11, [anon_sym_when, anon_sym_catch,
       anon_sym_with, anon_sym_Function, anon_sym_get, anon_sym_implements, anon_sym_operator,
       anon_sym_set, anon_sym_this, anon_sym_super, sym_identifier]), (ACTIONS 2550, 13,
       [anon_sym_LBRACE, anon_sym_RBRACE, anon_sym_COMMA, anon_sym_RBRACK, anon_sym_COLON,
       anon_sym_LPAREN, anon_sym_RPAREN, anon_sym_GT, anon_sym_DOT, anon_sym_SEMI,
       anon_sym_EQ_GT, anon_sym_AMP_AMP, anon_sym_PIPE_PIPE])])]"

lemma small_run_604: "small_run 1662 84937 ts_small_parse_table_604 1665 85095"
  by (simp add: small_simps ts_small_parse_table_604_def)

definition ts_small_parse_table_605 :: "small_group list" where
  "ts_small_parse_table_605 = [
     (85095, 9, [(ACTIONS 3, 1, [anon_sym_SLASH_SLASH]), (ACTIONS 5, 1, [anon_sym_SLASH_STAR]),
       (ACTIONS 7, 1, [anon_sym_SLASH_SLASH_SLASH]), (ACTIONS 9, 1, [sym__block_comment]),
       (ACTIONS 11, 1, [sym__documentation_block_comment]), (STATE 1657, 1,
       [aux_sym_bitwise_xor_expression_repeat1]), (STATE 1665, 2, [sym_comment,
       sym_documentation_comment]), (ACTIONS 2616, 9, [anon_sym_QMARK, anon_sym_LT, anon_sym_GT,
       anon_sym_PIPE, anon_sym_AMP, anon_sym_GT_GT, anon_sym_BANG, anon_sym_DOT,
       anon_sym_QMARK_DOT]), (ACTIONS 2614, 16, [anon_sym_LBRACK, anon_sym_LPAREN,
       anon_sym_QMARK_QMARK, sym_equality_operator, anon_sym_LT_EQ, anon_sym_GT_EQ,
       anon_sym_CARET, anon_sym_LT_LT, anon_sym_GT_GT_GT, sym__additive_operator, anon_sym_is,
       anon_sym_as, anon_sym_DOT_DOT, anon_sym_QMARK_DOT_DOT, anon_sym_AMP_AMP,
       anon_sym_PIPE_PIPE])]),
     (85147, 9, [(ACTIONS 3, 1, [anon_sym_SLASH_SLASH]), (ACTIONS 5, 1, [anon_sym_SLASH_STAR]),
       (ACTIONS 7, 1, [anon_sym_SLASH_SLASH_SLASH]), (ACTIONS 9, 1, [sym__block_comment]),
       (ACTIONS 11, 1, [sym__documentation_block_comment]), (STATE 1656, 1,
       [aux_sym_bitwise_and_expression_repeat1]), (STATE 1666, 2, [sym_comment,
       sym_documentation_comment]), (ACTIONS 2620, 9, [anon_sym_QMARK, anon_sym_LT, anon_sym_GT,
       anon_sym_PIPE, anon_sym_AMP, anon_sym_GT_GT, anon_sym_BANG, anon_sym_DOT,
       anon_sym_QMARK_DOT]), (ACTIONS 2618, 16, [anon_sym_LBRACK, anon_sym_LPAREN,
       anon_sym_QMARK_QMARK, sym_equality_operator, anon_sym_LT_EQ, anon_sym_GT_EQ,
       anon_sym_CARET, anon_sym_LT_LT, anon_sym_GT_GT_GT, sym__additive_operator, anon_sym_is,
       anon_sym_as, anon_sym_DOT_DOT, anon_sym_QMARK_DOT_DOT, anon_sym_AMP_AMP,
       anon_sym_PIPE_PIPE])]),
     (85199, 10, [(ACTIONS 3, 1, [anon_sym_SLASH_SLASH]), (ACTIONS 5, 1,
       [anon_sym_SLASH_STAR]), (ACTIONS 7, 1, [anon_sym_SLASH_SLASH_SLASH]), (ACTIONS 9, 1,
       [sym__block_comment]), (ACTIONS 11, 1, [sym__documentation_block_comment]), (ACTIONS 3616,
       1, [anon_sym_QMARK]), (STATE 1684, 1, [sym_nullable_type]), (STATE 1667, 2, [sym_comment,
       sym_documentation_comment]), (ACTIONS 2515, 11, [anon_sym_when, anon_sym_catch,
       anon_sym_with, anon_sym_Function, anon_sym_get, anon_sym_implements, anon_sym_operator,
       anon_sym_set, anon_sym_this, anon_sym_super, sym_identifier]), (ACTIONS 2507, 13,
       [anon_sym_LBRACE, anon_sym_RBRACE, anon_sym_COMMA, anon_sym_RBRACK, anon_sym_COLON,
       anon_sym_LPAREN, anon_sym_RPAREN, anon_sym_GT, anon_sym_DOT, anon_sym_SEMI,
       anon_sym_EQ_GT, anon_sym_AMP_AMP, anon_sym_PIPE_PIPE])])]"

lemma small_run_605: "small_run 1665 85095 ts_small_parse_table_605 1668 85253"
  by (simp add: small_simps ts_small_parse_table_605_def)

definition ts_small_parse_table_606 :: "small_group list" where
  "ts_small_parse_table_606 = [
     (85253, 28, [(ACTIONS 3, 1, [anon_sym_SLASH_SLASH]), (ACTIONS 5, 1,
       [anon_sym_SLASH_STAR]), (ACTIONS 7, 1, [anon_sym_SLASH_SLASH_SLASH]), (ACTIONS 9, 1,
       [sym__block_comment]), (ACTIONS 11, 1, [sym__documentation_block_comment]), (ACTIONS 1707,
       1, [anon_sym_factory]), (ACTIONS 1709, 1, [anon_sym_operator]), (ACTIONS 1711, 1,
       [anon_sym_static]), (ACTIONS 3721, 1, [sym_identifier]), (ACTIONS 3724, 1,
       [anon_sym_LPAREN]), (ACTIONS 3727, 1, [sym_void_type]), (ACTIONS 3730, 1,
       [anon_sym_Function]), (ACTIONS 3735, 1, [sym_const_builtin]), (STATE 1463, 1,
       [sym__function_builtin_identifier]), (STATE 1530, 1, [sym__type_name]), (STATE 1552, 1,
       [sym__operator]), (STATE 1605, 1, [aux_sym__function_type_tails]), (STATE 1704, 1,
       [sym__function_type_tail]), (STATE 1796, 1, [sym__type_not_function]), (STATE 1805, 1,
       [sym_record_type]), (STATE 1848, 1, [sym_function_type]), (STATE 1896, 1,
       [sym__type_not_void_not_function]), (STATE 2515, 1, [sym__static]), (STATE 3229, 1,
       [sym__type]), (STATE 3333, 1, [sym__factory]), (ACTIONS 3733, 2, [anon_sym_get,
       anon_sym_set]), (STATE 1668, 2, [sym_comment, sym_documentation_comment]), (STATE 3314, 4,
       [sym_operator_signature, sym_factory_constructor_signature, sym_constructor_signature,
       sym_constant_constructor_signature])]),
     (85343, 8, [(ACTIONS 3, 1, [anon_sym_SLASH_SLASH]), (ACTIONS 5, 1, [anon_sym_SLASH_STAR]),
       (ACTIONS 7, 1, [anon_sym_SLASH_SLASH_SLASH]), (ACTIONS 9, 1, [sym__block_comment]),
       (ACTIONS 11, 1, [sym__documentation_block_comment]), (STATE 1669, 2, [sym_comment,
       sym_documentation_comment]), (ACTIONS 2974, 6, [anon_sym_QMARK, anon_sym_LT, anon_sym_GT,
       anon_sym_PIPE, anon_sym_AMP, anon_sym_GT_GT]), (ACTIONS 2972, 19, [anon_sym_RBRACE,
       anon_sym_COMMA, anon_sym_RBRACK, anon_sym_COLON, anon_sym_RPAREN, anon_sym_QMARK_QMARK,
       sym_equality_operator, anon_sym_LT_EQ, anon_sym_GT_EQ, anon_sym_CARET, anon_sym_LT_LT,
       anon_sym_GT_GT_GT, sym__additive_operator, anon_sym_is, anon_sym_as, anon_sym_EQ_GT,
       anon_sym_when, anon_sym_AMP_AMP, anon_sym_PIPE_PIPE])]),
     (85392, 8, [(ACTIONS 3, 1, [anon_sym_SLASH_SLASH]), (ACTIONS 5, 1, [anon_sym_SLASH_STAR]),
       (ACTIONS 7, 1, [anon_sym_SLASH_SLASH_SLASH]), (ACTIONS 9, 1, [sym__block_comment]),
       (ACTIONS 11, 1, [sym__documentation_block_comment]), (STATE 1670, 2, [sym_comment,
       sym_documentation_comment]), (ACTIONS 2702, 11, [anon_sym_when, anon_sym_catch,
       anon_sym_with, anon_sym_Function, anon_sym_get, anon_sym_implements, anon_sym_operator,
       anon_sym_set, anon_sym_this, anon_sym_super, sym_identifier]), (ACTIONS 2700, 14,
       [anon_sym_LBRACE, anon_sym_RBRACE, anon_sym_COMMA, anon_sym_RBRACK, anon_sym_COLON,
       anon_sym_LPAREN, anon_sym_RPAREN, anon_sym_QMARK, anon_sym_GT, anon_sym_DOT,
       anon_sym_SEMI, anon_sym_EQ_GT, anon_sym_AMP_AMP, anon_sym_PIPE_PIPE])])]"

lemma small_run_606: "small_run 1668 85253 ts_small_parse_table_606 1671 85441"
  by (simp add: small_simps ts_small_parse_table_606_def)

definition ts_small_parse_table_607 :: "small_group list" where
  "ts_small_parse_table_607 = [
     (85441, 8, [(ACTIONS 3, 1, [anon_sym_SLASH_SLASH]), (ACTIONS 5, 1, [anon_sym_SLASH_STAR]),
       (ACTIONS 7, 1, [anon_sym_SLASH_SLASH_SLASH]), (ACTIONS 9, 1, [sym__block_comment]),
       (ACTIONS 11, 1, [sym__documentation_block_comment]), (STATE 1671, 2, [sym_comment,
       sym_documentation_comment]), (ACTIONS 3737, 4, [ts_builtin_sym_end, anon_sym_LPAREN,
       anon_sym_AT, sym_part_of_builtin]), (ACTIONS 3739, 21, [anon_sym_part, anon_sym_enum,
       anon_sym_final, anon_sym_inline, anon_sym_class, anon_sym_extension, sym_void_type,
       anon_sym_var, anon_sym_Function, anon_sym_get, anon_sym_interface, anon_sym_base,
       anon_sym_abstract, anon_sym_sealed, anon_sym_mixin, anon_sym_set, anon_sym_typedef,
       sym_const_builtin, anon_sym_late, anon_sym_external, sym_identifier])]),
     (85490, 8, [(ACTIONS 3, 1, [anon_sym_SLASH_SLASH]), (ACTIONS 5, 1, [anon_sym_SLASH_STAR]),
       (ACTIONS 7, 1, [anon_sym_SLASH_SLASH_SLASH]), (ACTIONS 9, 1, [sym__block_comment]),
       (ACTIONS 11, 1, [sym__documentation_block_comment]), (STATE 1672, 2, [sym_comment,
       sym_documentation_comment]), (ACTIONS 2770, 11, [anon_sym_when, anon_sym_catch,
       anon_sym_with, anon_sym_Function, anon_sym_get, anon_sym_implements, anon_sym_operator,
       anon_sym_set, anon_sym_this, anon_sym_super, sym_identifier]), (ACTIONS 2768, 14,
       [anon_sym_LBRACE, anon_sym_RBRACE, anon_sym_COMMA, anon_sym_RBRACK, anon_sym_COLON,
       anon_sym_LPAREN, anon_sym_RPAREN, anon_sym_QMARK, anon_sym_GT, anon_sym_DOT,
       anon_sym_SEMI, anon_sym_EQ_GT, anon_sym_AMP_AMP, anon_sym_PIPE_PIPE])]),
     (85539, 30, [(ACTIONS 3, 1, [anon_sym_SLASH_SLASH]), (ACTIONS 5, 1,
       [anon_sym_SLASH_STAR]), (ACTIONS 7, 1, [anon_sym_SLASH_SLASH_SLASH]), (ACTIONS 9, 1,
       [sym__block_comment]), (ACTIONS 11, 1, [sym__documentation_block_comment]), (ACTIONS 17,
       1, [anon_sym_LPAREN]), (ACTIONS 33, 1, [sym_void_type]), (ACTIONS 45, 1,
       [anon_sym_Function]), (ACTIONS 143, 1, [anon_sym_AT]), (ACTIONS 3408, 1,
       [sym_identifier]), (ACTIONS 3741, 1, [anon_sym_LBRACE]), (ACTIONS 3743, 1,
       [anon_sym_LBRACK]), (ACTIONS 3745, 1, [anon_sym_RPAREN]), (STATE 1308, 1,
       [aux_sym__metadata_repeat1]), (STATE 1361, 1, [sym_annotation]), (STATE 1463, 1,
       [sym__function_builtin_identifier]), (STATE 1530, 1, [sym__type_name]), (STATE 1605, 1,
       [aux_sym__function_type_tails]), (STATE 1704, 1, [sym__function_type_tail]), (STATE 1796,
       1, [sym__type_not_function]), (STATE 1805, 1, [sym_record_type]), (STATE 1848, 1,
       [sym_function_type]), (STATE 1896, 1, [sym__type_not_void_not_function]), (STATE 2033, 1,
       [sym__metadata]), (STATE 2639, 1, [sym__type]), (STATE 2730, 1,
       [sym_normal_parameter_type]), (STATE 2770, 1, [sym_typed_identifier]), (STATE 3292, 1,
       [sym_optional_parameter_types]), (STATE 1673, 2, [sym_comment,
       sym_documentation_comment]), (STATE 3472, 2, [sym_optional_positional_parameter_types,
       sym_named_parameter_types])])]"

lemma small_run_607: "small_run 1671 85441 ts_small_parse_table_607 1674 85632"
  by (simp add: small_simps ts_small_parse_table_607_def)

definition ts_small_parse_table_608 :: "small_group list" where
  "ts_small_parse_table_608 = [
     (85632, 8, [(ACTIONS 3, 1, [anon_sym_SLASH_SLASH]), (ACTIONS 5, 1, [anon_sym_SLASH_STAR]),
       (ACTIONS 7, 1, [anon_sym_SLASH_SLASH_SLASH]), (ACTIONS 9, 1, [sym__block_comment]),
       (ACTIONS 11, 1, [sym__documentation_block_comment]), (STATE 1674, 2, [sym_comment,
       sym_documentation_comment]), (ACTIONS 3747, 4, [ts_builtin_sym_end, anon_sym_LPAREN,
       anon_sym_AT, sym_part_of_builtin]), (ACTIONS 3749, 21, [anon_sym_part, anon_sym_enum,
       anon_sym_final, anon_sym_inline, anon_sym_class, anon_sym_extension, sym_void_type,
       anon_sym_var, anon_sym_Function, anon_sym_get, anon_sym_interface, anon_sym_base,
       anon_sym_abstract, anon_sym_sealed, anon_sym_mixin, anon_sym_set, anon_sym_typedef,
       sym_const_builtin, anon_sym_late, anon_sym_external, sym_identifier])]),
     (85681, 8, [(ACTIONS 3, 1, [anon_sym_SLASH_SLASH]), (ACTIONS 5, 1, [anon_sym_SLASH_STAR]),
       (ACTIONS 7, 1, [anon_sym_SLASH_SLASH_SLASH]), (ACTIONS 9, 1, [sym__block_comment]),
       (ACTIONS 11, 1, [sym__documentation_block_comment]), (STATE 1675, 2, [sym_comment,
       sym_documentation_comment]), (ACTIONS 2950, 6, [anon_sym_QMARK, anon_sym_LT, anon_sym_GT,
       anon_sym_PIPE, anon_sym_AMP, anon_sym_GT_GT]), (ACTIONS 2948, 19, [anon_sym_RBRACE,
       anon_sym_COMMA, anon_sym_RBRACK, anon_sym_COLON, anon_sym_RPAREN, anon_sym_QMARK_QMARK,
       sym_equality_operator, anon_sym_LT_EQ, anon_sym_GT_EQ, anon_sym_CARET, anon_sym_LT_LT,
       anon_sym_GT_GT_GT, sym__additive_operator, anon_sym_is, anon_sym_as, anon_sym_EQ_GT,
       anon_sym_when, anon_sym_AMP_AMP, anon_sym_PIPE_PIPE])]),
     (85730, 8, [(ACTIONS 3, 1, [anon_sym_SLASH_SLASH]), (ACTIONS 5, 1, [anon_sym_SLASH_STAR]),
       (ACTIONS 7, 1, [anon_sym_SLASH_SLASH_SLASH]), (ACTIONS 9, 1, [sym__block_comment]),
       (ACTIONS 11, 1, [sym__documentation_block_comment]), (STATE 1676, 2, [sym_comment,
       sym_documentation_comment]), (ACTIONS 2782, 11, [anon_sym_when, anon_sym_catch,
       anon_sym_with, anon_sym_Function, anon_sym_get, anon_sym_implements, anon_sym_operator,
       anon_sym_set, anon_sym_this, anon_sym_super, sym_identifier]), (ACTIONS 2780, 14,
       [anon_sym_LBRACE, anon_sym_RBRACE, anon_sym_COMMA, anon_sym_RBRACK, anon_sym_COLON,
       anon_sym_LPAREN, anon_sym_RPAREN, anon_sym_QMARK, anon_sym_GT, anon_sym_DOT,
       anon_sym_SEMI, anon_sym_EQ_GT, anon_sym_AMP_AMP, anon_sym_PIPE_PIPE])])]"

lemma small_run_608: "small_run 1674 85632 ts_small_parse_table_608 1677 85779"
  by (simp add: small_simps ts_small_parse_table_608_def)

definition ts_small_parse_table_609 :: "small_group list" where
  "ts_small_parse_table_609 = [
     (85779, 8, [(ACTIONS 3, 1, [anon_sym_SLASH_SLASH]), (ACTIONS 5, 1, [anon_sym_SLASH_STAR]),
       (ACTIONS 7, 1, [anon_sym_SLASH_SLASH_SLASH]), (ACTIONS 9, 1, [sym__block_comment]),
       (ACTIONS 11, 1, [sym__documentation_block_comment]), (STATE 1677, 2, [sym_comment,
       sym_documentation_comment]), (ACTIONS 2838, 6, [anon_sym_QMARK, anon_sym_LT, anon_sym_GT,
       anon_sym_PIPE, anon_sym_AMP, anon_sym_GT_GT]), (ACTIONS 2836, 19, [anon_sym_RBRACE,
       anon_sym_COMMA, anon_sym_RBRACK, anon_sym_COLON, anon_sym_RPAREN, anon_sym_QMARK_QMARK,
       sym_equality_operator, anon_sym_LT_EQ, anon_sym_GT_EQ, anon_sym_CARET, anon_sym_LT_LT,
       anon_sym_GT_GT_GT, sym__additive_operator, anon_sym_is, anon_sym_as, anon_sym_EQ_GT,
       anon_sym_when, anon_sym_AMP_AMP, anon_sym_PIPE_PIPE])]),
     (85828, 8, [(ACTIONS 3, 1, [anon_sym_SLASH_SLASH]), (ACTIONS 5, 1, [anon_sym_SLASH_STAR]),
       (ACTIONS 7, 1, [anon_sym_SLASH_SLASH_SLASH]), (ACTIONS 9, 1, [sym__block_comment]),
       (ACTIONS 11, 1, [sym__documentation_block_comment]), (STATE 1678, 2, [sym_comment,
       sym_documentation_comment]), (ACTIONS 2805, 11, [anon_sym_when, anon_sym_catch,
       anon_sym_with, anon_sym_Function, anon_sym_get, anon_sym_implements, anon_sym_operator,
       anon_sym_set, anon_sym_this, anon_sym_super, sym_identifier]), (ACTIONS 2803, 14,
       [anon_sym_LBRACE, anon_sym_RBRACE, anon_sym_COMMA, anon_sym_RBRACK, anon_sym_COLON,
       anon_sym_LPAREN, anon_sym_RPAREN, anon_sym_QMARK, anon_sym_GT, anon_sym_DOT,
       anon_sym_SEMI, anon_sym_EQ_GT, anon_sym_AMP_AMP, anon_sym_PIPE_PIPE])]),
     (85877, 8, [(ACTIONS 3, 1, [anon_sym_SLASH_SLASH]), (ACTIONS 5, 1, [anon_sym_SLASH_STAR]),
       (ACTIONS 7, 1, [anon_sym_SLASH_SLASH_SLASH]), (ACTIONS 9, 1, [sym__block_comment]),
       (ACTIONS 11, 1, [sym__documentation_block_comment]), (STATE 1679, 2, [sym_comment,
       sym_documentation_comment]), (ACTIONS 2473, 6, [anon_sym_QMARK, anon_sym_LT, anon_sym_GT,
       anon_sym_PIPE, anon_sym_AMP, anon_sym_GT_GT]), (ACTIONS 2471, 19, [anon_sym_RBRACE,
       anon_sym_COMMA, anon_sym_RBRACK, anon_sym_COLON, anon_sym_RPAREN, anon_sym_QMARK_QMARK,
       sym_equality_operator, anon_sym_LT_EQ, anon_sym_GT_EQ, anon_sym_CARET, anon_sym_LT_LT,
       anon_sym_GT_GT_GT, sym__additive_operator, anon_sym_is, anon_sym_as, anon_sym_EQ_GT,
       anon_sym_when, anon_sym_AMP_AMP, anon_sym_PIPE_PIPE])])]"

lemma small_run_609: "small_run 1677 85779 ts_small_parse_table_609 1680 85926"
  by (simp add: small_simps ts_small_parse_table_609_def)

definition ts_small_parse_table_610 :: "small_group list" where
  "ts_small_parse_table_610 = [
     (85926, 8, [(ACTIONS 3, 1, [anon_sym_SLASH_SLASH]), (ACTIONS 5, 1, [anon_sym_SLASH_STAR]),
       (ACTIONS 7, 1, [anon_sym_SLASH_SLASH_SLASH]), (ACTIONS 9, 1, [sym__block_comment]),
       (ACTIONS 11, 1, [sym__documentation_block_comment]), (STATE 1680, 2, [sym_comment,
       sym_documentation_comment]), (ACTIONS 2572, 11, [anon_sym_when, anon_sym_catch,
       anon_sym_with, anon_sym_Function, anon_sym_get, anon_sym_implements, anon_sym_operator,
       anon_sym_set, anon_sym_this, anon_sym_super, sym_identifier]), (ACTIONS 2567, 14,
       [anon_sym_LBRACE, anon_sym_RBRACE, anon_sym_COMMA, anon_sym_RBRACK, anon_sym_COLON,
       anon_sym_LPAREN, anon_sym_RPAREN, anon_sym_QMARK, anon_sym_GT, anon_sym_DOT,
       anon_sym_SEMI, anon_sym_EQ_GT, anon_sym_AMP_AMP, anon_sym_PIPE_PIPE])]),
     (85975, 8, [(ACTIONS 3, 1, [anon_sym_SLASH_SLASH]), (ACTIONS 5, 1, [anon_sym_SLASH_STAR]),
       (ACTIONS 7, 1, [anon_sym_SLASH_SLASH_SLASH]), (ACTIONS 9, 1, [sym__block_comment]),
       (ACTIONS 11, 1, [sym__documentation_block_comment]), (STATE 1681, 2, [sym_comment,
       sym_documentation_comment]), (ACTIONS 2801, 11, [anon_sym_when, anon_sym_catch,
       anon_sym_with, anon_sym_Function, anon_sym_get, anon_sym_implements, anon_sym_operator,
       anon_sym_set, anon_sym_this, anon_sym_super, sym_identifier]), (ACTIONS 2799, 14,
       [anon_sym_LBRACE, anon_sym_RBRACE, anon_sym_COMMA, anon_sym_RBRACK, anon_sym_COLON,
       anon_sym_LPAREN, anon_sym_RPAREN, anon_sym_QMARK, anon_sym_GT, anon_sym_DOT,
       anon_sym_SEMI, anon_sym_EQ_GT, anon_sym_AMP_AMP, anon_sym_PIPE_PIPE])]),
     (86024, 8, [(ACTIONS 3, 1, [anon_sym_SLASH_SLASH]), (ACTIONS 5, 1, [anon_sym_SLASH_STAR]),
       (ACTIONS 7, 1, [anon_sym_SLASH_SLASH_SLASH]), (ACTIONS 9, 1, [sym__block_comment]),
       (ACTIONS 11, 1, [sym__documentation_block_comment]), (STATE 1682, 2, [sym_comment,
       sym_documentation_comment]), (ACTIONS 2946, 6, [anon_sym_QMARK, anon_sym_LT, anon_sym_GT,
       anon_sym_PIPE, anon_sym_AMP, anon_sym_GT_GT]), (ACTIONS 2944, 19, [anon_sym_RBRACE,
       anon_sym_COMMA, anon_sym_RBRACK, anon_sym_COLON, anon_sym_RPAREN, anon_sym_QMARK_QMARK,
       sym_equality_operator, anon_sym_LT_EQ, anon_sym_GT_EQ, anon_sym_CARET, anon_sym_LT_LT,
       anon_sym_GT_GT_GT, sym__additive_operator, anon_sym_is, anon_sym_as, anon_sym_EQ_GT,
       anon_sym_when, anon_sym_AMP_AMP, anon_sym_PIPE_PIPE])])]"

lemma small_run_610: "small_run 1680 85926 ts_small_parse_table_610 1683 86073"
  by (simp add: small_simps ts_small_parse_table_610_def)

definition ts_small_parse_table_611 :: "small_group list" where
  "ts_small_parse_table_611 = [
     (86073, 8, [(ACTIONS 3, 1, [anon_sym_SLASH_SLASH]), (ACTIONS 5, 1, [anon_sym_SLASH_STAR]),
       (ACTIONS 7, 1, [anon_sym_SLASH_SLASH_SLASH]), (ACTIONS 9, 1, [sym__block_comment]),
       (ACTIONS 11, 1, [sym__documentation_block_comment]), (STATE 1683, 2, [sym_comment,
       sym_documentation_comment]), (ACTIONS 2680, 11, [anon_sym_when, anon_sym_catch,
       anon_sym_with, anon_sym_Function, anon_sym_get, anon_sym_implements, anon_sym_operator,
       anon_sym_set, anon_sym_this, anon_sym_super, sym_identifier]), (ACTIONS 2678, 14,
       [anon_sym_LBRACE, anon_sym_RBRACE, anon_sym_COMMA, anon_sym_RBRACK, anon_sym_COLON,
       anon_sym_LPAREN, anon_sym_RPAREN, anon_sym_QMARK, anon_sym_GT, anon_sym_DOT,
       anon_sym_SEMI, anon_sym_EQ_GT, anon_sym_AMP_AMP, anon_sym_PIPE_PIPE])]),
     (86122, 8, [(ACTIONS 3, 1, [anon_sym_SLASH_SLASH]), (ACTIONS 5, 1, [anon_sym_SLASH_STAR]),
       (ACTIONS 7, 1, [anon_sym_SLASH_SLASH_SLASH]), (ACTIONS 9, 1, [sym__block_comment]),
       (ACTIONS 11, 1, [sym__documentation_block_comment]), (STATE 1684, 2, [sym_comment,
       sym_documentation_comment]), (ACTIONS 2487, 11, [anon_sym_when, anon_sym_catch,
       anon_sym_with, anon_sym_Function, anon_sym_get, anon_sym_implements, anon_sym_operator,
       anon_sym_set, anon_sym_this, anon_sym_super, sym_identifier]), (ACTIONS 2479, 14,
       [anon_sym_LBRACE, anon_sym_RBRACE, anon_sym_COMMA, anon_sym_RBRACK, anon_sym_COLON,
       anon_sym_LPAREN, anon_sym_RPAREN, anon_sym_QMARK, anon_sym_GT, anon_sym_DOT,
       anon_sym_SEMI, anon_sym_EQ_GT, anon_sym_AMP_AMP, anon_sym_PIPE_PIPE])]),
     (86171, 8, [(ACTIONS 3, 1, [anon_sym_SLASH_SLASH]), (ACTIONS 5, 1, [anon_sym_SLASH_STAR]),
       (ACTIONS 7, 1, [anon_sym_SLASH_SLASH_SLASH]), (ACTIONS 9, 1, [sym__block_comment]),
       (ACTIONS 11, 1, [sym__documentation_block_comment]), (STATE 1685, 2, [sym_comment,
       sym_documentation_comment]), (ACTIONS 2684, 11, [anon_sym_when, anon_sym_catch,
       anon_sym_with, anon_sym_Function, anon_sym_get, anon_sym_implements, anon_sym_operator,
       anon_sym_set, anon_sym_this, anon_sym_super, sym_identifier]), (ACTIONS 2682, 14,
       [anon_sym_LBRACE, anon_sym_RBRACE, anon_sym_COMMA, anon_sym_RBRACK, anon_sym_COLON,
       anon_sym_LPAREN, anon_sym_RPAREN, anon_sym_QMARK, anon_sym_GT, anon_sym_DOT,
       anon_sym_SEMI, anon_sym_EQ_GT, anon_sym_AMP_AMP, anon_sym_PIPE_PIPE])])]"

lemma small_run_611: "small_run 1683 86073 ts_small_parse_table_611 1686 86220"
  by (simp add: small_simps ts_small_parse_table_611_def)

definition ts_small_parse_table_612 :: "small_group list" where
  "ts_small_parse_table_612 = [
     (86220, 30, [(ACTIONS 3, 1, [anon_sym_SLASH_SLASH]), (ACTIONS 5, 1,
       [anon_sym_SLASH_STAR]), (ACTIONS 7, 1, [anon_sym_SLASH_SLASH_SLASH]), (ACTIONS 9, 1,
       [sym__block_comment]), (ACTIONS 11, 1, [sym__documentation_block_comment]), (ACTIONS 17,
       1, [anon_sym_LPAREN]), (ACTIONS 33, 1, [sym_void_type]), (ACTIONS 45, 1,
       [anon_sym_Function]), (ACTIONS 143, 1, [anon_sym_AT]), (ACTIONS 3408, 1,
       [sym_identifier]), (ACTIONS 3741, 1, [anon_sym_LBRACE]), (ACTIONS 3743, 1,
       [anon_sym_LBRACK]), (ACTIONS 3751, 1, [anon_sym_RPAREN]), (STATE 1308, 1,
       [aux_sym__metadata_repeat1]), (STATE 1361, 1, [sym_annotation]), (STATE 1463, 1,
       [sym__function_builtin_identifier]), (STATE 1530, 1, [sym__type_name]), (STATE 1605, 1,
       [aux_sym__function_type_tails]), (STATE 1704, 1, [sym__function_type_tail]), (STATE 1796,
       1, [sym__type_not_function]), (STATE 1805, 1, [sym_record_type]), (STATE 1848, 1,
       [sym_function_type]), (STATE 1896, 1, [sym__type_not_void_not_function]), (STATE 2033, 1,
       [sym__metadata]), (STATE 2639, 1, [sym__type]), (STATE 2770, 1, [sym_typed_identifier]),
       (STATE 3005, 1, [sym_normal_parameter_type]), (STATE 3484, 1,
       [sym_optional_parameter_types]), (STATE 1686, 2, [sym_comment,
       sym_documentation_comment]), (STATE 3472, 2, [sym_optional_positional_parameter_types,
       sym_named_parameter_types])]),
     (86313, 8, [(ACTIONS 3, 1, [anon_sym_SLASH_SLASH]), (ACTIONS 5, 1, [anon_sym_SLASH_STAR]),
       (ACTIONS 7, 1, [anon_sym_SLASH_SLASH_SLASH]), (ACTIONS 9, 1, [sym__block_comment]),
       (ACTIONS 11, 1, [sym__documentation_block_comment]), (STATE 1687, 2, [sym_comment,
       sym_documentation_comment]), (ACTIONS 2735, 11, [anon_sym_when, anon_sym_catch,
       anon_sym_with, anon_sym_Function, anon_sym_get, anon_sym_implements, anon_sym_operator,
       anon_sym_set, anon_sym_this, anon_sym_super, sym_identifier]), (ACTIONS 2733, 14,
       [anon_sym_LBRACE, anon_sym_RBRACE, anon_sym_COMMA, anon_sym_RBRACK, anon_sym_COLON,
       anon_sym_LPAREN, anon_sym_RPAREN, anon_sym_QMARK, anon_sym_GT, anon_sym_DOT,
       anon_sym_SEMI, anon_sym_EQ_GT, anon_sym_AMP_AMP, anon_sym_PIPE_PIPE])])]"

lemma small_run_612: "small_run 1686 86220 ts_small_parse_table_612 1688 86362"
  by (simp add: small_simps ts_small_parse_table_612_def)

definition ts_small_parse_table_613 :: "small_group list" where
  "ts_small_parse_table_613 = [
     (86362, 30, [(ACTIONS 3, 1, [anon_sym_SLASH_SLASH]), (ACTIONS 5, 1,
       [anon_sym_SLASH_STAR]), (ACTIONS 7, 1, [anon_sym_SLASH_SLASH_SLASH]), (ACTIONS 9, 1,
       [sym__block_comment]), (ACTIONS 11, 1, [sym__documentation_block_comment]), (ACTIONS 17,
       1, [anon_sym_LPAREN]), (ACTIONS 33, 1, [sym_void_type]), (ACTIONS 45, 1,
       [anon_sym_Function]), (ACTIONS 143, 1, [anon_sym_AT]), (ACTIONS 3408, 1,
       [sym_identifier]), (ACTIONS 3741, 1, [anon_sym_LBRACE]), (ACTIONS 3743, 1,
       [anon_sym_LBRACK]), (ACTIONS 3753, 1, [anon_sym_RPAREN]), (STATE 1308, 1,
       [aux_sym__metadata_repeat1]), (STATE 1361, 1, [sym_annotation]), (STATE 1463, 1,
       [sym__function_builtin_identifier]), (STATE 1530, 1, [sym__type_name]), (STATE 1605, 1,
       [aux_sym__function_type_tails]), (STATE 1704, 1, [sym__function_type_tail]), (STATE 1796,
       1, [sym__type_not_function]), (STATE 1805, 1, [sym_record_type]), (STATE 1848, 1,
       [sym_function_type]), (STATE 1896, 1, [sym__type_not_void_not_function]), (STATE 2033, 1,
       [sym__metadata]), (STATE 2639, 1, [sym__type]), (STATE 2770, 1, [sym_typed_identifier]),
       (STATE 3005, 1, [sym_normal_parameter_type]), (STATE 3307, 1,
       [sym_optional_parameter_types]), (STATE 1688, 2, [sym_comment,
       sym_documentation_comment]), (STATE 3472, 2, [sym_optional_positional_parameter_types,
       sym_named_parameter_types])]),
     (86455, 30, [(ACTIONS 3, 1, [anon_sym_SLASH_SLASH]), (ACTIONS 5, 1,
       [anon_sym_SLASH_STAR]), (ACTIONS 7, 1, [anon_sym_SLASH_SLASH_SLASH]), (ACTIONS 9, 1,
       [sym__block_comment]), (ACTIONS 11, 1, [sym__documentation_block_comment]), (ACTIONS 17,
       1, [anon_sym_LPAREN]), (ACTIONS 33, 1, [sym_void_type]), (ACTIONS 45, 1,
       [anon_sym_Function]), (ACTIONS 143, 1, [anon_sym_AT]), (ACTIONS 3408, 1,
       [sym_identifier]), (ACTIONS 3741, 1, [anon_sym_LBRACE]), (ACTIONS 3743, 1,
       [anon_sym_LBRACK]), (ACTIONS 3755, 1, [anon_sym_RPAREN]), (STATE 1308, 1,
       [aux_sym__metadata_repeat1]), (STATE 1361, 1, [sym_annotation]), (STATE 1463, 1,
       [sym__function_builtin_identifier]), (STATE 1530, 1, [sym__type_name]), (STATE 1605, 1,
       [aux_sym__function_type_tails]), (STATE 1704, 1, [sym__function_type_tail]), (STATE 1796,
       1, [sym__type_not_function]), (STATE 1805, 1, [sym_record_type]), (STATE 1848, 1,
       [sym_function_type]), (STATE 1896, 1, [sym__type_not_void_not_function]), (STATE 2033, 1,
       [sym__metadata]), (STATE 2639, 1, [sym__type]), (STATE 2770, 1, [sym_typed_identifier]),
       (STATE 3005, 1, [sym_normal_parameter_type]), (STATE 3563, 1,
       [sym_optional_parameter_types]), (STATE 1689, 2, [sym_comment,
       sym_documentation_comment]), (STATE 3472, 2, [sym_optional_positional_parameter_types,
       sym_named_parameter_types])])]"

lemma small_run_613: "small_run 1688 86362 ts_small_parse_table_613 1690 86548"
  by (simp add: small_simps ts_small_parse_table_613_def)

definition ts_small_parse_table_614 :: "small_group list" where
  "ts_small_parse_table_614 = [
     (86548, 30, [(ACTIONS 3, 1, [anon_sym_SLASH_SLASH]), (ACTIONS 5, 1,
       [anon_sym_SLASH_STAR]), (ACTIONS 7, 1, [anon_sym_SLASH_SLASH_SLASH]), (ACTIONS 9, 1,
       [sym__block_comment]), (ACTIONS 11, 1, [sym__documentation_block_comment]), (ACTIONS 17,
       1, [anon_sym_LPAREN]), (ACTIONS 33, 1, [sym_void_type]), (ACTIONS 45, 1,
       [anon_sym_Function]), (ACTIONS 143, 1, [anon_sym_AT]), (ACTIONS 3408, 1,
       [sym_identifier]), (ACTIONS 3741, 1, [anon_sym_LBRACE]), (ACTIONS 3743, 1,
       [anon_sym_LBRACK]), (ACTIONS 3757, 1, [anon_sym_RPAREN]), (STATE 1308, 1,
       [aux_sym__metadata_repeat1]), (STATE 1361, 1, [sym_annotation]), (STATE 1463, 1,
       [sym__function_builtin_identifier]), (STATE 1530, 1, [sym__type_name]), (STATE 1605, 1,
       [aux_sym__function_type_tails]), (STATE 1704, 1, [sym__function_type_tail]), (STATE 1796,
       1, [sym__type_not_function]), (STATE 1805, 1, [sym_record_type]), (STATE 1848, 1,
       [sym_function_type]), (STATE 1896, 1, [sym__type_not_void_not_function]), (STATE 2033, 1,
       [sym__metadata]), (STATE 2639, 1, [sym__type]), (STATE 2770, 1, [sym_typed_identifier]),
       (STATE 3005, 1, [sym_normal_parameter_type]), (STATE 3506, 1,
       [sym_optional_parameter_types]), (STATE 1690, 2, [sym_comment,
       sym_documentation_comment]), (STATE 3472, 2, [sym_optional_positional_parameter_types,
       sym_named_parameter_types])]),
     (86641, 30, [(ACTIONS 3, 1, [anon_sym_SLASH_SLASH]), (ACTIONS 5, 1,
       [anon_sym_SLASH_STAR]), (ACTIONS 7, 1, [anon_sym_SLASH_SLASH_SLASH]), (ACTIONS 9, 1,
       [sym__block_comment]), (ACTIONS 11, 1, [sym__documentation_block_comment]), (ACTIONS 17,
       1, [anon_sym_LPAREN]), (ACTIONS 33, 1, [sym_void_type]), (ACTIONS 45, 1,
       [anon_sym_Function]), (ACTIONS 143, 1, [anon_sym_AT]), (ACTIONS 3408, 1,
       [sym_identifier]), (ACTIONS 3741, 1, [anon_sym_LBRACE]), (ACTIONS 3743, 1,
       [anon_sym_LBRACK]), (ACTIONS 3759, 1, [anon_sym_RPAREN]), (STATE 1308, 1,
       [aux_sym__metadata_repeat1]), (STATE 1361, 1, [sym_annotation]), (STATE 1463, 1,
       [sym__function_builtin_identifier]), (STATE 1530, 1, [sym__type_name]), (STATE 1605, 1,
       [aux_sym__function_type_tails]), (STATE 1704, 1, [sym__function_type_tail]), (STATE 1796,
       1, [sym__type_not_function]), (STATE 1805, 1, [sym_record_type]), (STATE 1848, 1,
       [sym_function_type]), (STATE 1896, 1, [sym__type_not_void_not_function]), (STATE 2033, 1,
       [sym__metadata]), (STATE 2639, 1, [sym__type]), (STATE 2770, 1, [sym_typed_identifier]),
       (STATE 3005, 1, [sym_normal_parameter_type]), (STATE 3355, 1,
       [sym_optional_parameter_types]), (STATE 1691, 2, [sym_comment,
       sym_documentation_comment]), (STATE 3472, 2, [sym_optional_positional_parameter_types,
       sym_named_parameter_types])])]"

lemma small_run_614: "small_run 1690 86548 ts_small_parse_table_614 1692 86734"
  by (simp add: small_simps ts_small_parse_table_614_def)

definition ts_small_parse_table_615 :: "small_group list" where
  "ts_small_parse_table_615 = [
     (86734, 8, [(ACTIONS 3, 1, [anon_sym_SLASH_SLASH]), (ACTIONS 5, 1, [anon_sym_SLASH_STAR]),
       (ACTIONS 7, 1, [anon_sym_SLASH_SLASH_SLASH]), (ACTIONS 9, 1, [sym__block_comment]),
       (ACTIONS 11, 1, [sym__documentation_block_comment]), (STATE 1692, 2, [sym_comment,
       sym_documentation_comment]), (ACTIONS 2608, 11, [anon_sym_when, anon_sym_catch,
       anon_sym_with, anon_sym_Function, anon_sym_get, anon_sym_implements, anon_sym_operator,
       anon_sym_set, anon_sym_this, anon_sym_super, sym_identifier]), (ACTIONS 2606, 14,
       [anon_sym_LBRACE, anon_sym_RBRACE, anon_sym_COMMA, anon_sym_RBRACK, anon_sym_COLON,
       anon_sym_LPAREN, anon_sym_RPAREN, anon_sym_QMARK, anon_sym_GT, anon_sym_DOT,
       anon_sym_SEMI, anon_sym_EQ_GT, anon_sym_AMP_AMP, anon_sym_PIPE_PIPE])]),
     (86783, 30, [(ACTIONS 3, 1, [anon_sym_SLASH_SLASH]), (ACTIONS 5, 1,
       [anon_sym_SLASH_STAR]), (ACTIONS 7, 1, [anon_sym_SLASH_SLASH_SLASH]), (ACTIONS 9, 1,
       [sym__block_comment]), (ACTIONS 11, 1, [sym__documentation_block_comment]), (ACTIONS 17,
       1, [anon_sym_LPAREN]), (ACTIONS 33, 1, [sym_void_type]), (ACTIONS 45, 1,
       [anon_sym_Function]), (ACTIONS 143, 1, [anon_sym_AT]), (ACTIONS 3408, 1,
       [sym_identifier]), (ACTIONS 3741, 1, [anon_sym_LBRACE]), (ACTIONS 3743, 1,
       [anon_sym_LBRACK]), (ACTIONS 3761, 1, [anon_sym_RPAREN]), (STATE 1308, 1,
       [aux_sym__metadata_repeat1]), (STATE 1361, 1, [sym_annotation]), (STATE 1463, 1,
       [sym__function_builtin_identifier]), (STATE 1530, 1, [sym__type_name]), (STATE 1605, 1,
       [aux_sym__function_type_tails]), (STATE 1704, 1, [sym__function_type_tail]), (STATE 1796,
       1, [sym__type_not_function]), (STATE 1805, 1, [sym_record_type]), (STATE 1848, 1,
       [sym_function_type]), (STATE 1896, 1, [sym__type_not_void_not_function]), (STATE 2033, 1,
       [sym__metadata]), (STATE 2639, 1, [sym__type]), (STATE 2770, 1, [sym_typed_identifier]),
       (STATE 3005, 1, [sym_normal_parameter_type]), (STATE 3328, 1,
       [sym_optional_parameter_types]), (STATE 1693, 2, [sym_comment,
       sym_documentation_comment]), (STATE 3472, 2, [sym_optional_positional_parameter_types,
       sym_named_parameter_types])]),
     (86876, 8, [(ACTIONS 3, 1, [anon_sym_SLASH_SLASH]), (ACTIONS 5, 1, [anon_sym_SLASH_STAR]),
       (ACTIONS 7, 1, [anon_sym_SLASH_SLASH_SLASH]), (ACTIONS 9, 1, [sym__block_comment]),
       (ACTIONS 11, 1, [sym__documentation_block_comment]), (STATE 1694, 2, [sym_comment,
       sym_documentation_comment]), (ACTIONS 2714, 11, [anon_sym_when, anon_sym_catch,
       anon_sym_with, anon_sym_Function, anon_sym_get, anon_sym_implements, anon_sym_operator,
       anon_sym_set, anon_sym_this, anon_sym_super, sym_identifier]), (ACTIONS 2712, 14,
       [anon_sym_LBRACE, anon_sym_RBRACE, anon_sym_COMMA, anon_sym_RBRACK, anon_sym_COLON,
       anon_sym_LPAREN, anon_sym_RPAREN, anon_sym_QMARK, anon_sym_GT, anon_sym_DOT,
       anon_sym_SEMI, anon_sym_EQ_GT, anon_sym_AMP_AMP, anon_sym_PIPE_PIPE])])]"

lemma small_run_615: "small_run 1692 86734 ts_small_parse_table_615 1695 86925"
  by (simp add: small_simps ts_small_parse_table_615_def)

definition ts_small_parse_table_616 :: "small_group list" where
  "ts_small_parse_table_616 = [
     (86925, 30, [(ACTIONS 3, 1, [anon_sym_SLASH_SLASH]), (ACTIONS 5, 1,
       [anon_sym_SLASH_STAR]), (ACTIONS 7, 1, [anon_sym_SLASH_SLASH_SLASH]), (ACTIONS 9, 1,
       [sym__block_comment]), (ACTIONS 11, 1, [sym__documentation_block_comment]), (ACTIONS 17,
       1, [anon_sym_LPAREN]), (ACTIONS 33, 1, [sym_void_type]), (ACTIONS 45, 1,
       [anon_sym_Function]), (ACTIONS 143, 1, [anon_sym_AT]), (ACTIONS 3408, 1,
       [sym_identifier]), (ACTIONS 3741, 1, [anon_sym_LBRACE]), (ACTIONS 3743, 1,
       [anon_sym_LBRACK]), (ACTIONS 3763, 1, [anon_sym_RPAREN]), (STATE 1308, 1,
       [aux_sym__metadata_repeat1]), (STATE 1361, 1, [sym_annotation]), (STATE 1463, 1,
       [sym__function_builtin_identifier]), (STATE 1530, 1, [sym__type_name]), (STATE 1605, 1,
       [aux_sym__function_type_tails]), (STATE 1704, 1, [sym__function_type_tail]), (STATE 1796,
       1, [sym__type_not_function]), (STATE 1805, 1, [sym_record_type]), (STATE 1848, 1,
       [sym_function_type]), (STATE 1896, 1, [sym__type_not_void_not_function]), (STATE 2033, 1,
       [sym__metadata]), (STATE 2639, 1, [sym__type]), (STATE 2770, 1, [sym_typed_identifier]),
       (STATE 2959, 1, [sym_normal_parameter_type]), (STATE 3522, 1,
       [sym_optional_parameter_types]), (STATE 1695, 2, [sym_comment,
       sym_documentation_comment]), (STATE 3472, 2, [sym_optional_positional_parameter_types,
       sym_named_parameter_types])]),
     (87018, 8, [(ACTIONS 3, 1, [anon_sym_SLASH_SLASH]), (ACTIONS 5, 1, [anon_sym_SLASH_STAR]),
       (ACTIONS 7, 1, [anon_sym_SLASH_SLASH_SLASH]), (ACTIONS 9, 1, [sym__block_comment]),
       (ACTIONS 11, 1, [sym__documentation_block_comment]), (STATE 1696, 2, [sym_comment,
       sym_documentation_comment]), (ACTIONS 2910, 6, [anon_sym_QMARK, anon_sym_LT, anon_sym_GT,
       anon_sym_PIPE, anon_sym_AMP, anon_sym_GT_GT]), (ACTIONS 2908, 19, [anon_sym_RBRACE,
       anon_sym_COMMA, anon_sym_RBRACK, anon_sym_COLON, anon_sym_RPAREN, anon_sym_QMARK_QMARK,
       sym_equality_operator, anon_sym_LT_EQ, anon_sym_GT_EQ, anon_sym_CARET, anon_sym_LT_LT,
       anon_sym_GT_GT_GT, sym__additive_operator, anon_sym_is, anon_sym_as, anon_sym_EQ_GT,
       anon_sym_when, anon_sym_AMP_AMP, anon_sym_PIPE_PIPE])]),
     (87067, 8, [(ACTIONS 3, 1, [anon_sym_SLASH_SLASH]), (ACTIONS 5, 1, [anon_sym_SLASH_STAR]),
       (ACTIONS 7, 1, [anon_sym_SLASH_SLASH_SLASH]), (ACTIONS 9, 1, [sym__block_comment]),
       (ACTIONS 11, 1, [sym__documentation_block_comment]), (STATE 1697, 2, [sym_comment,
       sym_documentation_comment]), (ACTIONS 2692, 11, [anon_sym_when, anon_sym_catch,
       anon_sym_with, anon_sym_Function, anon_sym_get, anon_sym_implements, anon_sym_operator,
       anon_sym_set, anon_sym_this, anon_sym_super, sym_identifier]), (ACTIONS 2690, 14,
       [anon_sym_LBRACE, anon_sym_RBRACE, anon_sym_COMMA, anon_sym_RBRACK, anon_sym_COLON,
       anon_sym_LPAREN, anon_sym_RPAREN, anon_sym_QMARK, anon_sym_GT, anon_sym_DOT,
       anon_sym_SEMI, anon_sym_EQ_GT, anon_sym_AMP_AMP, anon_sym_PIPE_PIPE])])]"

lemma small_run_616: "small_run 1695 86925 ts_small_parse_table_616 1698 87116"
  by (simp add: small_simps ts_small_parse_table_616_def)

definition ts_small_parse_table_617 :: "small_group list" where
  "ts_small_parse_table_617 = [
     (87116, 30, [(ACTIONS 3, 1, [anon_sym_SLASH_SLASH]), (ACTIONS 5, 1,
       [anon_sym_SLASH_STAR]), (ACTIONS 7, 1, [anon_sym_SLASH_SLASH_SLASH]), (ACTIONS 9, 1,
       [sym__block_comment]), (ACTIONS 11, 1, [sym__documentation_block_comment]), (ACTIONS 17,
       1, [anon_sym_LPAREN]), (ACTIONS 33, 1, [sym_void_type]), (ACTIONS 45, 1,
       [anon_sym_Function]), (ACTIONS 143, 1, [anon_sym_AT]), (ACTIONS 3408, 1,
       [sym_identifier]), (ACTIONS 3741, 1, [anon_sym_LBRACE]), (ACTIONS 3743, 1,
       [anon_sym_LBRACK]), (ACTIONS 3765, 1, [anon_sym_RPAREN]), (STATE 1308, 1,
       [aux_sym__metadata_repeat1]), (STATE 1361, 1, [sym_annotation]), (STATE 1463, 1,
       [sym__function_builtin_identifier]), (STATE 1530, 1, [sym__type_name]), (STATE 1605, 1,
       [aux_sym__function_type_tails]), (STATE 1704, 1, [sym__function_type_tail]), (STATE 1796,
       1, [sym__type_not_function]), (STATE 1805, 1, [sym_record_type]), (STATE 1848, 1,
       [sym_function_type]), (STATE 1896, 1, [sym__type_not_void_not_function]), (STATE 2033, 1,
       [sym__metadata]), (STATE 2639, 1, [sym__type]), (STATE 2770, 1, [sym_typed_identifier]),
       (STATE 3005, 1, [sym_normal_parameter_type]), (STATE 3316, 1,
       [sym_optional_parameter_types]), (STATE 1698, 2, [sym_comment,
       sym_documentation_comment]), (STATE 3472, 2, [sym_optional_positional_parameter_types,
       sym_named_parameter_types])]),
     (87209, 30, [(ACTIONS 3, 1, [anon_sym_SLASH_SLASH]), (ACTIONS 5, 1,
       [anon_sym_SLASH_STAR]), (ACTIONS 7, 1, [anon_sym_SLASH_SLASH_SLASH]), (ACTIONS 9, 1,
       [sym__block_comment]), (ACTIONS 11, 1, [sym__documentation_block_comment]), (ACTIONS 17,
       1, [anon_sym_LPAREN]), (ACTIONS 33, 1, [sym_void_type]), (ACTIONS 45, 1,
       [anon_sym_Function]), (ACTIONS 143, 1, [anon_sym_AT]), (ACTIONS 3408, 1,
       [sym_identifier]), (ACTIONS 3741, 1, [anon_sym_LBRACE]), (ACTIONS 3743, 1,
       [anon_sym_LBRACK]), (ACTIONS 3767, 1, [anon_sym_RPAREN]), (STATE 1308, 1,
       [aux_sym__metadata_repeat1]), (STATE 1361, 1, [sym_annotation]), (STATE 1463, 1,
       [sym__function_builtin_identifier]), (STATE 1530, 1, [sym__type_name]), (STATE 1605, 1,
       [aux_sym__function_type_tails]), (STATE 1704, 1, [sym__function_type_tail]), (STATE 1796,
       1, [sym__type_not_function]), (STATE 1805, 1, [sym_record_type]), (STATE 1848, 1,
       [sym_function_type]), (STATE 1896, 1, [sym__type_not_void_not_function]), (STATE 2033, 1,
       [sym__metadata]), (STATE 2639, 1, [sym__type]), (STATE 2770, 1, [sym_typed_identifier]),
       (STATE 3005, 1, [sym_normal_parameter_type]), (STATE 3352, 1,
       [sym_optional_parameter_types]), (STATE 1699, 2, [sym_comment,
       sym_documentation_comment]), (STATE 3472, 2, [sym_optional_positional_parameter_types,
       sym_named_parameter_types])])]"

lemma small_run_617: "small_run 1698 87116 ts_small_parse_table_617 1700 87302"
  by (simp add: small_simps ts_small_parse_table_617_def)

definition ts_small_parse_table_618 :: "small_group list" where
  "ts_small_parse_table_618 = [
     (87302, 8, [(ACTIONS 3, 1, [anon_sym_SLASH_SLASH]), (ACTIONS 5, 1, [anon_sym_SLASH_STAR]),
       (ACTIONS 7, 1, [anon_sym_SLASH_SLASH_SLASH]), (ACTIONS 9, 1, [sym__block_comment]),
       (ACTIONS 11, 1, [sym__documentation_block_comment]), (STATE 1700, 2, [sym_comment,
       sym_documentation_comment]), (ACTIONS 2655, 11, [anon_sym_when, anon_sym_catch,
       anon_sym_with, anon_sym_Function, anon_sym_get, anon_sym_implements, anon_sym_operator,
       anon_sym_set, anon_sym_this, anon_sym_super, sym_identifier]), (ACTIONS 2653, 14,
       [anon_sym_LBRACE, anon_sym_RBRACE, anon_sym_COMMA, anon_sym_RBRACK, anon_sym_COLON,
       anon_sym_LPAREN, anon_sym_RPAREN, anon_sym_QMARK, anon_sym_GT, anon_sym_DOT,
       anon_sym_SEMI, anon_sym_EQ_GT, anon_sym_AMP_AMP, anon_sym_PIPE_PIPE])]),
     (87351, 30, [(ACTIONS 3, 1, [anon_sym_SLASH_SLASH]), (ACTIONS 5, 1,
       [anon_sym_SLASH_STAR]), (ACTIONS 7, 1, [anon_sym_SLASH_SLASH_SLASH]), (ACTIONS 9, 1,
       [sym__block_comment]), (ACTIONS 11, 1, [sym__documentation_block_comment]), (ACTIONS 17,
       1, [anon_sym_LPAREN]), (ACTIONS 33, 1, [sym_void_type]), (ACTIONS 45, 1,
       [anon_sym_Function]), (ACTIONS 143, 1, [anon_sym_AT]), (ACTIONS 3408, 1,
       [sym_identifier]), (ACTIONS 3741, 1, [anon_sym_LBRACE]), (ACTIONS 3743, 1,
       [anon_sym_LBRACK]), (ACTIONS 3769, 1, [anon_sym_RPAREN]), (STATE 1308, 1,
       [aux_sym__metadata_repeat1]), (STATE 1361, 1, [sym_annotation]), (STATE 1463, 1,
       [sym__function_builtin_identifier]), (STATE 1530, 1, [sym__type_name]), (STATE 1605, 1,
       [aux_sym__function_type_tails]), (STATE 1704, 1, [sym__function_type_tail]), (STATE 1796,
       1, [sym__type_not_function]), (STATE 1805, 1, [sym_record_type]), (STATE 1848, 1,
       [sym_function_type]), (STATE 1896, 1, [sym__type_not_void_not_function]), (STATE 2033, 1,
       [sym__metadata]), (STATE 2639, 1, [sym__type]), (STATE 2701, 1,
       [sym_normal_parameter_type]), (STATE 2770, 1, [sym_typed_identifier]), (STATE 3336, 1,
       [sym_optional_parameter_types]), (STATE 1701, 2, [sym_comment,
       sym_documentation_comment]), (STATE 3472, 2, [sym_optional_positional_parameter_types,
       sym_named_parameter_types])]),
     (87444, 8, [(ACTIONS 3, 1, [anon_sym_SLASH_SLASH]), (ACTIONS 5, 1, [anon_sym_SLASH_STAR]),
       (ACTIONS 7, 1, [anon_sym_SLASH_SLASH_SLASH]), (ACTIONS 9, 1, [sym__block_comment]),
       (ACTIONS 11, 1, [sym__documentation_block_comment]), (STATE 1702, 2, [sym_comment,
       sym_documentation_comment]), (ACTIONS 2722, 11, [anon_sym_when, anon_sym_catch,
       anon_sym_with, anon_sym_Function, anon_sym_get, anon_sym_implements, anon_sym_operator,
       anon_sym_set, anon_sym_this, anon_sym_super, sym_identifier]), (ACTIONS 2720, 14,
       [anon_sym_LBRACE, anon_sym_RBRACE, anon_sym_COMMA, anon_sym_RBRACK, anon_sym_COLON,
       anon_sym_LPAREN, anon_sym_RPAREN, anon_sym_QMARK, anon_sym_GT, anon_sym_DOT,
       anon_sym_SEMI, anon_sym_EQ_GT, anon_sym_AMP_AMP, anon_sym_PIPE_PIPE])])]"

lemma small_run_618: "small_run 1700 87302 ts_small_parse_table_618 1703 87493"
  by (simp add: small_simps ts_small_parse_table_618_def)

definition ts_small_parse_table_619 :: "small_group list" where
  "ts_small_parse_table_619 = [
     (87493, 8, [(ACTIONS 3, 1, [anon_sym_SLASH_SLASH]), (ACTIONS 5, 1, [anon_sym_SLASH_STAR]),
       (ACTIONS 7, 1, [anon_sym_SLASH_SLASH_SLASH]), (ACTIONS 9, 1, [sym__block_comment]),
       (ACTIONS 11, 1, [sym__documentation_block_comment]), (STATE 1703, 2, [sym_comment,
       sym_documentation_comment]), (ACTIONS 2651, 11, [anon_sym_when, anon_sym_catch,
       anon_sym_with, anon_sym_Function, anon_sym_get, anon_sym_implements, anon_sym_operator,
       anon_sym_set, anon_sym_this, anon_sym_super, sym_identifier]), (ACTIONS 2649, 14,
       [anon_sym_LBRACE, anon_sym_RBRACE, anon_sym_COMMA, anon_sym_RBRACK, anon_sym_COLON,
       anon_sym_LPAREN, anon_sym_RPAREN, anon_sym_QMARK, anon_sym_GT, anon_sym_DOT,
       anon_sym_SEMI, anon_sym_EQ_GT, anon_sym_AMP_AMP, anon_sym_PIPE_PIPE])]),
     (87542, 8, [(ACTIONS 3, 1, [anon_sym_SLASH_SLASH]), (ACTIONS 5, 1, [anon_sym_SLASH_STAR]),
       (ACTIONS 7, 1, [anon_sym_SLASH_SLASH_SLASH]), (ACTIONS 9, 1, [sym__block_comment]),
       (ACTIONS 11, 1, [sym__documentation_block_comment]), (STATE 1704, 2, [sym_comment,
       sym_documentation_comment]), (ACTIONS 2728, 11, [anon_sym_when, anon_sym_catch,
       anon_sym_with, anon_sym_Function, anon_sym_get, anon_sym_implements, anon_sym_operator,
       anon_sym_set, anon_sym_this, anon_sym_super, sym_identifier]), (ACTIONS 2726, 14,
       [anon_sym_LBRACE, anon_sym_RBRACE, anon_sym_COMMA, anon_sym_RBRACK, anon_sym_COLON,
       anon_sym_LPAREN, anon_sym_RPAREN, anon_sym_QMARK, anon_sym_GT, anon_sym_DOT,
       anon_sym_SEMI, anon_sym_EQ_GT, anon_sym_AMP_AMP, anon_sym_PIPE_PIPE])]),
     (87591, 30, [(ACTIONS 3, 1, [anon_sym_SLASH_SLASH]), (ACTIONS 5, 1,
       [anon_sym_SLASH_STAR]), (ACTIONS 7, 1, [anon_sym_SLASH_SLASH_SLASH]), (ACTIONS 9, 1,
       [sym__block_comment]), (ACTIONS 11, 1, [sym__documentation_block_comment]), (ACTIONS 17,
       1, [anon_sym_LPAREN]), (ACTIONS 33, 1, [sym_void_type]), (ACTIONS 45, 1,
       [anon_sym_Function]), (ACTIONS 143, 1, [anon_sym_AT]), (ACTIONS 3408, 1,
       [sym_identifier]), (ACTIONS 3741, 1, [anon_sym_LBRACE]), (ACTIONS 3743, 1,
       [anon_sym_LBRACK]), (ACTIONS 3771, 1, [anon_sym_RPAREN]), (STATE 1308, 1,
       [aux_sym__metadata_repeat1]), (STATE 1361, 1, [sym_annotation]), (STATE 1463, 1,
       [sym__function_builtin_identifier]), (STATE 1530, 1, [sym__type_name]), (STATE 1605, 1,
       [aux_sym__function_type_tails]), (STATE 1704, 1, [sym__function_type_tail]), (STATE 1796,
       1, [sym__type_not_function]), (STATE 1805, 1, [sym_record_type]), (STATE 1848, 1,
       [sym_function_type]), (STATE 1896, 1, [sym__type_not_void_not_function]), (STATE 2033, 1,
       [sym__metadata]), (STATE 2639, 1, [sym__type]), (STATE 2770, 1, [sym_typed_identifier]),
       (STATE 3005, 1, [sym_normal_parameter_type]), (STATE 3569, 1,
       [sym_optional_parameter_types]), (STATE 1705, 2, [sym_comment,
       sym_documentation_comment]), (STATE 3472, 2, [sym_optional_positional_parameter_types,
       sym_named_parameter_types])])]"

lemma small_run_619: "small_run 1703 87493 ts_small_parse_table_619 1706 87684"
  by (simp add: small_simps ts_small_parse_table_619_def)

definition ts_small_parse_table_620 :: "small_group list" where
  "ts_small_parse_table_620 = [
     (87684, 8, [(ACTIONS 3, 1, [anon_sym_SLASH_SLASH]), (ACTIONS 5, 1, [anon_sym_SLASH_STAR]),
       (ACTIONS 7, 1, [anon_sym_SLASH_SLASH_SLASH]), (ACTIONS 9, 1, [sym__block_comment]),
       (ACTIONS 11, 1, [sym__documentation_block_comment]), (STATE 1706, 2, [sym_comment,
       sym_documentation_comment]), (ACTIONS 2644, 11, [anon_sym_when, anon_sym_catch,
       anon_sym_with, anon_sym_Function, anon_sym_get, anon_sym_implements, anon_sym_operator,
       anon_sym_set, anon_sym_this, anon_sym_super, sym_identifier]), (ACTIONS 2642, 14,
       [anon_sym_LBRACE, anon_sym_RBRACE, anon_sym_COMMA, anon_sym_RBRACK, anon_sym_COLON,
       anon_sym_LPAREN, anon_sym_RPAREN, anon_sym_QMARK, anon_sym_GT, anon_sym_DOT,
       anon_sym_SEMI, anon_sym_EQ_GT, anon_sym_AMP_AMP, anon_sym_PIPE_PIPE])]),
     (87733, 30, [(ACTIONS 3, 1, [anon_sym_SLASH_SLASH]), (ACTIONS 5, 1,
       [anon_sym_SLASH_STAR]), (ACTIONS 7, 1, [anon_sym_SLASH_SLASH_SLASH]), (ACTIONS 9, 1,
       [sym__block_comment]), (ACTIONS 11, 1, [sym__documentation_block_comment]), (ACTIONS 17,
       1, [anon_sym_LPAREN]), (ACTIONS 33, 1, [sym_void_type]), (ACTIONS 45, 1,
       [anon_sym_Function]), (ACTIONS 143, 1, [anon_sym_AT]), (ACTIONS 3408, 1,
       [sym_identifier]), (ACTIONS 3741, 1, [anon_sym_LBRACE]), (ACTIONS 3743, 1,
       [anon_sym_LBRACK]), (ACTIONS 3773, 1, [anon_sym_RPAREN]), (STATE 1308, 1,
       [aux_sym__metadata_repeat1]), (STATE 1361, 1, [sym_annotation]), (STATE 1463, 1,
       [sym__function_builtin_identifier]), (STATE 1530, 1, [sym__type_name]), (STATE 1605, 1,
       [aux_sym__function_type_tails]), (STATE 1704, 1, [sym__function_type_tail]), (STATE 1796,
       1, [sym__type_not_function]), (STATE 1805, 1, [sym_record_type]), (STATE 1848, 1,
       [sym_function_type]), (STATE 1896, 1, [sym__type_not_void_not_function]), (STATE 2033, 1,
       [sym__metadata]), (STATE 2639, 1, [sym__type]), (STATE 2770, 1, [sym_typed_identifier]),
       (STATE 3005, 1, [sym_normal_parameter_type]), (STATE 3320, 1,
       [sym_optional_parameter_types]), (STATE 1707, 2, [sym_comment,
       sym_documentation_comment]), (STATE 3472, 2, [sym_optional_positional_parameter_types,
       sym_named_parameter_types])]),
     (87826, 8, [(ACTIONS 3, 1, [anon_sym_SLASH_SLASH]), (ACTIONS 5, 1, [anon_sym_SLASH_STAR]),
       (ACTIONS 7, 1, [anon_sym_SLASH_SLASH_SLASH]), (ACTIONS 9, 1, [sym__block_comment]),
       (ACTIONS 11, 1, [sym__documentation_block_comment]), (STATE 1708, 2, [sym_comment,
       sym_documentation_comment]), (ACTIONS 2842, 6, [anon_sym_QMARK, anon_sym_LT, anon_sym_GT,
       anon_sym_PIPE, anon_sym_AMP, anon_sym_GT_GT]), (ACTIONS 2840, 19, [anon_sym_RBRACE,
       anon_sym_COMMA, anon_sym_RBRACK, anon_sym_COLON, anon_sym_RPAREN, anon_sym_QMARK_QMARK,
       sym_equality_operator, anon_sym_LT_EQ, anon_sym_GT_EQ, anon_sym_CARET, anon_sym_LT_LT,
       anon_sym_GT_GT_GT, sym__additive_operator, anon_sym_is, anon_sym_as, anon_sym_EQ_GT,
       anon_sym_when, anon_sym_AMP_AMP, anon_sym_PIPE_PIPE])])]"

lemma small_run_620: "small_run 1706 87684 ts_small_parse_table_620 1709 87875"
  by (simp add: small_simps ts_small_parse_table_620_def)

definition ts_small_parse_table_621 :: "small_group list" where
  "ts_small_parse_table_621 = [
     (87875, 8, [(ACTIONS 3, 1, [anon_sym_SLASH_SLASH]), (ACTIONS 5, 1, [anon_sym_SLASH_STAR]),
       (ACTIONS 7, 1, [anon_sym_SLASH_SLASH_SLASH]), (ACTIONS 9, 1, [sym__block_comment]),
       (ACTIONS 11, 1, [sym__documentation_block_comment]), (STATE 1709, 2, [sym_comment,
       sym_documentation_comment]), (ACTIONS 2978, 6, [anon_sym_QMARK, anon_sym_LT, anon_sym_GT,
       anon_sym_PIPE, anon_sym_AMP, anon_sym_GT_GT]), (ACTIONS 2976, 19, [anon_sym_RBRACE,
       anon_sym_COMMA, anon_sym_RBRACK, anon_sym_COLON, anon_sym_RPAREN, anon_sym_QMARK_QMARK,
       sym_equality_operator, anon_sym_LT_EQ, anon_sym_GT_EQ, anon_sym_CARET, anon_sym_LT_LT,
       anon_sym_GT_GT_GT, sym__additive_operator, anon_sym_is, anon_sym_as, anon_sym_EQ_GT,
       anon_sym_when, anon_sym_AMP_AMP, anon_sym_PIPE_PIPE])]),
     (87924, 8, [(ACTIONS 3, 1, [anon_sym_SLASH_SLASH]), (ACTIONS 5, 1, [anon_sym_SLASH_STAR]),
       (ACTIONS 7, 1, [anon_sym_SLASH_SLASH_SLASH]), (ACTIONS 9, 1, [sym__block_comment]),
       (ACTIONS 11, 1, [sym__documentation_block_comment]), (STATE 1710, 2, [sym_comment,
       sym_documentation_comment]), (ACTIONS 1412, 6, [anon_sym_QMARK, anon_sym_LT, anon_sym_GT,
       anon_sym_PIPE, anon_sym_AMP, anon_sym_GT_GT]), (ACTIONS 1410, 19, [anon_sym_RBRACE,
       anon_sym_COMMA, anon_sym_RBRACK, anon_sym_COLON, anon_sym_RPAREN, anon_sym_QMARK_QMARK,
       sym_equality_operator, anon_sym_LT_EQ, anon_sym_GT_EQ, anon_sym_CARET, anon_sym_LT_LT,
       anon_sym_GT_GT_GT, sym__additive_operator, anon_sym_is, anon_sym_as, anon_sym_EQ_GT,
       anon_sym_when, anon_sym_AMP_AMP, anon_sym_PIPE_PIPE])]),
     (87973, 8, [(ACTIONS 3, 1, [anon_sym_SLASH_SLASH]), (ACTIONS 5, 1, [anon_sym_SLASH_STAR]),
       (ACTIONS 7, 1, [anon_sym_SLASH_SLASH_SLASH]), (ACTIONS 9, 1, [sym__block_comment]),
       (ACTIONS 11, 1, [sym__documentation_block_comment]), (STATE 1711, 2, [sym_comment,
       sym_documentation_comment]), (ACTIONS 2764, 6, [anon_sym_QMARK, anon_sym_LT, anon_sym_GT,
       anon_sym_PIPE, anon_sym_AMP, anon_sym_GT_GT]), (ACTIONS 2762, 19, [anon_sym_RBRACE,
       anon_sym_COMMA, anon_sym_RBRACK, anon_sym_COLON, anon_sym_RPAREN, anon_sym_QMARK_QMARK,
       sym_equality_operator, anon_sym_LT_EQ, anon_sym_GT_EQ, anon_sym_CARET, anon_sym_LT_LT,
       anon_sym_GT_GT_GT, sym__additive_operator, anon_sym_is, anon_sym_as, anon_sym_EQ_GT,
       anon_sym_when, anon_sym_AMP_AMP, anon_sym_PIPE_PIPE])])]"

lemma small_run_621: "small_run 1709 87875 ts_small_parse_table_621 1712 88022"
  by (simp add: small_simps ts_small_parse_table_621_def)

definition ts_small_parse_table_622 :: "small_group list" where
  "ts_small_parse_table_622 = [
     (88022, 30, [(ACTIONS 3, 1, [anon_sym_SLASH_SLASH]), (ACTIONS 5, 1,
       [anon_sym_SLASH_STAR]), (ACTIONS 7, 1, [anon_sym_SLASH_SLASH_SLASH]), (ACTIONS 9, 1,
       [sym__block_comment]), (ACTIONS 11, 1, [sym__documentation_block_comment]), (ACTIONS 17,
       1, [anon_sym_LPAREN]), (ACTIONS 33, 1, [sym_void_type]), (ACTIONS 45, 1,
       [anon_sym_Function]), (ACTIONS 143, 1, [anon_sym_AT]), (ACTIONS 3408, 1,
       [sym_identifier]), (ACTIONS 3741, 1, [anon_sym_LBRACE]), (ACTIONS 3743, 1,
       [anon_sym_LBRACK]), (ACTIONS 3775, 1, [anon_sym_RPAREN]), (STATE 1308, 1,
       [aux_sym__metadata_repeat1]), (STATE 1361, 1, [sym_annotation]), (STATE 1463, 1,
       [sym__function_builtin_identifier]), (STATE 1530, 1, [sym__type_name]), (STATE 1605, 1,
       [aux_sym__function_type_tails]), (STATE 1704, 1, [sym__function_type_tail]), (STATE 1796,
       1, [sym__type_not_function]), (STATE 1805, 1, [sym_record_type]), (STATE 1848, 1,
       [sym_function_type]), (STATE 1896, 1, [sym__type_not_void_not_function]), (STATE 2033, 1,
       [sym__metadata]), (STATE 2639, 1, [sym__type]), (STATE 2770, 1, [sym_typed_identifier]),
       (STATE 3005, 1, [sym_normal_parameter_type]), (STATE 3465, 1,
       [sym_optional_parameter_types]), (STATE 1712, 2, [sym_comment,
       sym_documentation_comment]), (STATE 3472, 2, [sym_optional_positional_parameter_types,
       sym_named_parameter_types])]),
     (88115, 8, [(ACTIONS 3, 1, [anon_sym_SLASH_SLASH]), (ACTIONS 5, 1, [anon_sym_SLASH_STAR]),
       (ACTIONS 7, 1, [anon_sym_SLASH_SLASH_SLASH]), (ACTIONS 9, 1, [sym__block_comment]),
       (ACTIONS 11, 1, [sym__documentation_block_comment]), (STATE 1713, 2, [sym_comment,
       sym_documentation_comment]), (ACTIONS 3777, 4, [ts_builtin_sym_end, anon_sym_LPAREN,
       anon_sym_AT, sym_part_of_builtin]), (ACTIONS 3779, 21, [anon_sym_part, anon_sym_enum,
       anon_sym_final, anon_sym_inline, anon_sym_class, anon_sym_extension, sym_void_type,
       anon_sym_var, anon_sym_Function, anon_sym_get, anon_sym_interface, anon_sym_base,
       anon_sym_abstract, anon_sym_sealed, anon_sym_mixin, anon_sym_set, anon_sym_typedef,
       sym_const_builtin, anon_sym_late, anon_sym_external, sym_identifier])])]"

lemma small_run_622: "small_run 1712 88022 ts_small_parse_table_622 1714 88164"
  by (simp add: small_simps ts_small_parse_table_622_def)

definition ts_small_parse_table_623 :: "small_group list" where
  "ts_small_parse_table_623 = [
     (88164, 30, [(ACTIONS 3, 1, [anon_sym_SLASH_SLASH]), (ACTIONS 5, 1,
       [anon_sym_SLASH_STAR]), (ACTIONS 7, 1, [anon_sym_SLASH_SLASH_SLASH]), (ACTIONS 9, 1,
       [sym__block_comment]), (ACTIONS 11, 1, [sym__documentation_block_comment]), (ACTIONS 17,
       1, [anon_sym_LPAREN]), (ACTIONS 33, 1, [sym_void_type]), (ACTIONS 45, 1,
       [anon_sym_Function]), (ACTIONS 143, 1, [anon_sym_AT]), (ACTIONS 3408, 1,
       [sym_identifier]), (ACTIONS 3741, 1, [anon_sym_LBRACE]), (ACTIONS 3743, 1,
       [anon_sym_LBRACK]), (ACTIONS 3781, 1, [anon_sym_RPAREN]), (STATE 1308, 1,
       [aux_sym__metadata_repeat1]), (STATE 1361, 1, [sym_annotation]), (STATE 1463, 1,
       [sym__function_builtin_identifier]), (STATE 1530, 1, [sym__type_name]), (STATE 1605, 1,
       [aux_sym__function_type_tails]), (STATE 1704, 1, [sym__function_type_tail]), (STATE 1796,
       1, [sym__type_not_function]), (STATE 1805, 1, [sym_record_type]), (STATE 1848, 1,
       [sym_function_type]), (STATE 1896, 1, [sym__type_not_void_not_function]), (STATE 2033, 1,
       [sym__metadata]), (STATE 2639, 1, [sym__type]), (STATE 2770, 1, [sym_typed_identifier]),
       (STATE 2832, 1, [sym_normal_parameter_type]), (STATE 3394, 1,
       [sym_optional_parameter_types]), (STATE 1714, 2, [sym_comment,
       sym_documentation_comment]), (STATE 3472, 2, [sym_optional_positional_parameter_types,
       sym_named_parameter_types])]),
     (88257, 30, [(ACTIONS 3, 1, [anon_sym_SLASH_SLASH]), (ACTIONS 5, 1,
       [anon_sym_SLASH_STAR]), (ACTIONS 7, 1, [anon_sym_SLASH_SLASH_SLASH]), (ACTIONS 9, 1,
       [sym__block_comment]), (ACTIONS 11, 1, [sym__documentation_block_comment]), (ACTIONS 17,
       1, [anon_sym_LPAREN]), (ACTIONS 33, 1, [sym_void_type]), (ACTIONS 45, 1,
       [anon_sym_Function]), (ACTIONS 143, 1, [anon_sym_AT]), (ACTIONS 3408, 1,
       [sym_identifier]), (ACTIONS 3741, 1, [anon_sym_LBRACE]), (ACTIONS 3743, 1,
       [anon_sym_LBRACK]), (ACTIONS 3783, 1, [anon_sym_RPAREN]), (STATE 1308, 1,
       [aux_sym__metadata_repeat1]), (STATE 1361, 1, [sym_annotation]), (STATE 1463, 1,
       [sym__function_builtin_identifier]), (STATE 1530, 1, [sym__type_name]), (STATE 1605, 1,
       [aux_sym__function_type_tails]), (STATE 1704, 1, [sym__function_type_tail]), (STATE 1796,
       1, [sym__type_not_function]), (STATE 1805, 1, [sym_record_type]), (STATE 1848, 1,
       [sym_function_type]), (STATE 1896, 1, [sym__type_not_void_not_function]), (STATE 2033, 1,
       [sym__metadata]), (STATE 2639, 1, [sym__type]), (STATE 2770, 1, [sym_typed_identifier]),
       (STATE 3005, 1, [sym_normal_parameter_type]), (STATE 3452, 1,
       [sym_optional_parameter_types]), (STATE 1715, 2, [sym_comment,
       sym_documentation_comment]), (STATE 3472, 2, [sym_optional_positional_parameter_types,
       sym_named_parameter_types])])]"

lemma small_run_623: "small_run 1714 88164 ts_small_parse_table_623 1716 88350"
  by (simp add: small_simps ts_small_parse_table_623_def)

definition ts_small_parse_table_624 :: "small_group list" where
  "ts_small_parse_table_624 = [
     (88350, 30, [(ACTIONS 3, 1, [anon_sym_SLASH_SLASH]), (ACTIONS 5, 1,
       [anon_sym_SLASH_STAR]), (ACTIONS 7, 1, [anon_sym_SLASH_SLASH_SLASH]), (ACTIONS 9, 1,
       [sym__block_comment]), (ACTIONS 11, 1, [sym__documentation_block_comment]), (ACTIONS 17,
       1, [anon_sym_LPAREN]), (ACTIONS 33, 1, [sym_void_type]), (ACTIONS 45, 1,
       [anon_sym_Function]), (ACTIONS 143, 1, [anon_sym_AT]), (ACTIONS 3408, 1,
       [sym_identifier]), (ACTIONS 3741, 1, [anon_sym_LBRACE]), (ACTIONS 3743, 1,
       [anon_sym_LBRACK]), (ACTIONS 3785, 1, [anon_sym_RPAREN]), (STATE 1308, 1,
       [aux_sym__metadata_repeat1]), (STATE 1361, 1, [sym_annotation]), (STATE 1463, 1,
       [sym__function_builtin_identifier]), (STATE 1530, 1, [sym__type_name]), (STATE 1605, 1,
       [aux_sym__function_type_tails]), (STATE 1704, 1, [sym__function_type_tail]), (STATE 1796,
       1, [sym__type_not_function]), (STATE 1805, 1, [sym_record_type]), (STATE 1848, 1,
       [sym_function_type]), (STATE 1896, 1, [sym__type_not_void_not_function]), (STATE 2033, 1,
       [sym__metadata]), (STATE 2639, 1, [sym__type]), (STATE 2770, 1, [sym_typed_identifier]),
       (STATE 2843, 1, [sym_normal_parameter_type]), (STATE 3400, 1,
       [sym_optional_parameter_types]), (STATE 1716, 2, [sym_comment,
       sym_documentation_comment]), (STATE 3472, 2, [sym_optional_positional_parameter_types,
       sym_named_parameter_types])]),
     (88443, 30, [(ACTIONS 3, 1, [anon_sym_SLASH_SLASH]), (ACTIONS 5, 1,
       [anon_sym_SLASH_STAR]), (ACTIONS 7, 1, [anon_sym_SLASH_SLASH_SLASH]), (ACTIONS 9, 1,
       [sym__block_comment]), (ACTIONS 11, 1, [sym__documentation_block_comment]), (ACTIONS 17,
       1, [anon_sym_LPAREN]), (ACTIONS 33, 1, [sym_void_type]), (ACTIONS 45, 1,
       [anon_sym_Function]), (ACTIONS 143, 1, [anon_sym_AT]), (ACTIONS 3408, 1,
       [sym_identifier]), (ACTIONS 3741, 1, [anon_sym_LBRACE]), (ACTIONS 3743, 1,
       [anon_sym_LBRACK]), (ACTIONS 3787, 1, [anon_sym_RPAREN]), (STATE 1308, 1,
       [aux_sym__metadata_repeat1]), (STATE 1361, 1, [sym_annotation]), (STATE 1463, 1,
       [sym__function_builtin_identifier]), (STATE 1530, 1, [sym__type_name]), (STATE 1605, 1,
       [aux_sym__function_type_tails]), (STATE 1704, 1, [sym__function_type_tail]), (STATE 1796,
       1, [sym__type_not_function]), (STATE 1805, 1, [sym_record_type]), (STATE 1848, 1,
       [sym_function_type]), (STATE 1896, 1, [sym__type_not_void_not_function]), (STATE 2033, 1,
       [sym__metadata]), (STATE 2639, 1, [sym__type]), (STATE 2759, 1,
       [sym_normal_parameter_type]), (STATE 2770, 1, [sym_typed_identifier]), (STATE 3470, 1,
       [sym_optional_parameter_types]), (STATE 1717, 2, [sym_comment,
       sym_documentation_comment]), (STATE 3472, 2, [sym_optional_positional_parameter_types,
       sym_named_parameter_types])])]"

lemma small_run_624: "small_run 1716 88350 ts_small_parse_table_624 1718 88536"
  by (simp add: small_simps ts_small_parse_table_624_def)

definition ts_small_parse_table_625 :: "small_group list" where
  "ts_small_parse_table_625 = [
     (88536, 8, [(ACTIONS 3, 1, [anon_sym_SLASH_SLASH]), (ACTIONS 5, 1, [anon_sym_SLASH_STAR]),
       (ACTIONS 7, 1, [anon_sym_SLASH_SLASH_SLASH]), (ACTIONS 9, 1, [sym__block_comment]),
       (ACTIONS 11, 1, [sym__documentation_block_comment]), (STATE 1718, 2, [sym_comment,
       sym_documentation_comment]), (ACTIONS 2555, 11, [anon_sym_when, anon_sym_catch,
       anon_sym_with, anon_sym_Function, anon_sym_get, anon_sym_implements, anon_sym_operator,
       anon_sym_set, anon_sym_this, anon_sym_super, sym_identifier]), (ACTIONS 2550, 13,
       [anon_sym_LBRACE, anon_sym_RBRACE, anon_sym_COMMA, anon_sym_RBRACK, anon_sym_COLON,
       anon_sym_LPAREN, anon_sym_RPAREN, anon_sym_GT, anon_sym_DOT, anon_sym_SEMI,
       anon_sym_EQ_GT, anon_sym_AMP_AMP, anon_sym_PIPE_PIPE])]),
     (88584, 17, [(ACTIONS 3, 1, [anon_sym_SLASH_SLASH]), (ACTIONS 5, 1,
       [anon_sym_SLASH_STAR]), (ACTIONS 7, 1, [anon_sym_SLASH_SLASH_SLASH]), (ACTIONS 9, 1,
       [sym__block_comment]), (ACTIONS 11, 1, [sym__documentation_block_comment]), (ACTIONS 1183,
       1, [anon_sym_QMARK]), (ACTIONS 3789, 1, [anon_sym_DQUOTE]), (ACTIONS 3792, 1,
       [anon_sym_SQUOTE]), (ACTIONS 3795, 1, [anon_sym_DQUOTE_DQUOTE_DQUOTE]), (ACTIONS 3798, 1,
       [anon_sym_SQUOTE_SQUOTE_SQUOTE]), (ACTIONS 3801, 1, [anon_sym_r_DQUOTE]), (ACTIONS 3804,
       1, [anon_sym_r_SQUOTE]), (ACTIONS 3807, 1, [anon_sym_r_DQUOTE_DQUOTE_DQUOTE]), (ACTIONS
       3810, 1, [anon_sym_r_SQUOTE_SQUOTE_SQUOTE]), (STATE 1719, 3, [sym_comment,
       sym_documentation_comment, aux_sym_string_literal_repeat1]), (ACTIONS 1181, 6,
       [anon_sym_LBRACK, anon_sym_LPAREN, anon_sym_LT, anon_sym_BANG, anon_sym_DOT,
       anon_sym_QMARK_DOT]), (STATE 1994, 8, [sym__string_literal_double_quotes,
       sym__string_literal_single_quotes, sym__string_literal_double_quotes_multiple,
       sym__string_literal_single_quotes_multiple, sym__raw_string_literal_double_quotes,
       sym__raw_string_literal_single_quotes, sym__raw_string_literal_double_quotes_multiple,
       sym__raw_string_literal_single_quotes_multiple])]),
     (88650, 18, [(ACTIONS 3, 1, [anon_sym_SLASH_SLASH]), (ACTIONS 5, 1,
       [anon_sym_SLASH_STAR]), (ACTIONS 7, 1, [anon_sym_SLASH_SLASH_SLASH]), (ACTIONS 9, 1,
       [sym__block_comment]), (ACTIONS 11, 1, [sym__documentation_block_comment]), (ACTIONS 1089,
       1, [anon_sym_DQUOTE]), (ACTIONS 1091, 1, [anon_sym_SQUOTE]), (ACTIONS 1093, 1,
       [anon_sym_DQUOTE_DQUOTE_DQUOTE]), (ACTIONS 1095, 1, [anon_sym_SQUOTE_SQUOTE_SQUOTE]),
       (ACTIONS 1097, 1, [anon_sym_r_DQUOTE]), (ACTIONS 1099, 1, [anon_sym_r_SQUOTE]), (ACTIONS
       1101, 1, [anon_sym_r_DQUOTE_DQUOTE_DQUOTE]), (ACTIONS 1103, 1,
       [anon_sym_r_SQUOTE_SQUOTE_SQUOTE]), (ACTIONS 1187, 1, [anon_sym_QMARK]), (STATE 1719, 1,
       [aux_sym_string_literal_repeat1]), (STATE 1720, 2, [sym_comment,
       sym_documentation_comment]), (ACTIONS 1185, 6, [anon_sym_LBRACK, anon_sym_LPAREN,
       anon_sym_LT, anon_sym_BANG, anon_sym_DOT, anon_sym_QMARK_DOT]), (STATE 1994, 8,
       [sym__string_literal_double_quotes, sym__string_literal_single_quotes,
       sym__string_literal_double_quotes_multiple, sym__string_literal_single_quotes_multiple,
       sym__raw_string_literal_double_quotes, sym__raw_string_literal_single_quotes,
       sym__raw_string_literal_double_quotes_multiple,
       sym__raw_string_literal_single_quotes_multiple])])]"

lemma small_run_625: "small_run 1718 88536 ts_small_parse_table_625 1721 88718"
  by (simp add: small_simps ts_small_parse_table_625_def)

definition ts_small_parse_table_626 :: "small_group list" where
  "ts_small_parse_table_626 = [
     (88718, 8, [(ACTIONS 3, 1, [anon_sym_SLASH_SLASH]), (ACTIONS 5, 1, [anon_sym_SLASH_STAR]),
       (ACTIONS 7, 1, [anon_sym_SLASH_SLASH_SLASH]), (ACTIONS 9, 1, [sym__block_comment]),
       (ACTIONS 11, 1, [sym__documentation_block_comment]), (STATE 1721, 2, [sym_comment,
       sym_documentation_comment]), (ACTIONS 2778, 11, [anon_sym_when, anon_sym_catch,
       anon_sym_with, anon_sym_Function, anon_sym_get, anon_sym_implements, anon_sym_operator,
       anon_sym_set, anon_sym_this, anon_sym_super, sym_identifier]), (ACTIONS 2776, 13,
       [anon_sym_LBRACE, anon_sym_RBRACE, anon_sym_COMMA, anon_sym_RBRACK, anon_sym_COLON,
       anon_sym_LPAREN, anon_sym_RPAREN, anon_sym_GT, anon_sym_DOT, anon_sym_SEMI,
       anon_sym_EQ_GT, anon_sym_AMP_AMP, anon_sym_PIPE_PIPE])]),
     (88766, 30, [(ACTIONS 3, 1, [anon_sym_SLASH_SLASH]), (ACTIONS 5, 1,
       [anon_sym_SLASH_STAR]), (ACTIONS 7, 1, [anon_sym_SLASH_SLASH_SLASH]), (ACTIONS 9, 1,
       [sym__block_comment]), (ACTIONS 11, 1, [sym__documentation_block_comment]), (ACTIONS 17,
       1, [anon_sym_LPAREN]), (ACTIONS 33, 1, [sym_void_type]), (ACTIONS 35, 1, [anon_sym_var]),
       (ACTIONS 45, 1, [anon_sym_Function]), (ACTIONS 67, 1, [anon_sym_late]), (ACTIONS 145, 1,
       [anon_sym_final]), (ACTIONS 153, 1, [anon_sym_covariant]), (ACTIONS 2268, 1,
       [sym_const_builtin]), (ACTIONS 3408, 1, [sym_identifier]), (STATE 1463, 1,
       [sym__function_builtin_identifier]), (STATE 1530, 1, [sym__type_name]), (STATE 1605, 1,
       [aux_sym__function_type_tails]), (STATE 1704, 1, [sym__function_type_tail]), (STATE 1796,
       1, [sym__type_not_function]), (STATE 1802, 1, [sym__covariant]), (STATE 1805, 1,
       [sym_record_type]), (STATE 1848, 1, [sym_function_type]), (STATE 1896, 1,
       [sym__type_not_void_not_function]), (STATE 1915, 1, [sym__late_builtin]), (STATE 1976, 1,
       [sym_inferred_type]), (STATE 1984, 1, [sym_final_builtin]), (STATE 2755, 1,
       [sym__var_or_type]), (STATE 2943, 1, [sym__type]), (STATE 3536, 1,
       [sym__final_const_var_or_type]), (STATE 1722, 2, [sym_comment,
       sym_documentation_comment])]),
     (88858, 8, [(ACTIONS 3, 1, [anon_sym_SLASH_SLASH]), (ACTIONS 5, 1, [anon_sym_SLASH_STAR]),
       (ACTIONS 7, 1, [anon_sym_SLASH_SLASH_SLASH]), (ACTIONS 9, 1, [sym__block_comment]),
       (ACTIONS 11, 1, [sym__documentation_block_comment]), (STATE 1723, 2, [sym_comment,
       sym_documentation_comment]), (ACTIONS 3813, 4, [ts_builtin_sym_end, anon_sym_LPAREN,
       anon_sym_AT, sym_part_of_builtin]), (ACTIONS 3815, 20, [anon_sym_enum, anon_sym_final,
       anon_sym_inline, anon_sym_class, anon_sym_extension, sym_void_type, anon_sym_var,
       anon_sym_Function, anon_sym_get, anon_sym_interface, anon_sym_base, anon_sym_abstract,
       anon_sym_sealed, anon_sym_mixin, anon_sym_set, anon_sym_typedef, sym_const_builtin,
       anon_sym_late, anon_sym_external, sym_identifier])])]"

lemma small_run_626: "small_run 1721 88718 ts_small_parse_table_626 1724 88906"
  by (simp add: small_simps ts_small_parse_table_626_def)

definition ts_small_parse_table_627 :: "small_group list" where
  "ts_small_parse_table_627 = [
     (88906, 8, [(ACTIONS 3, 1, [anon_sym_SLASH_SLASH]), (ACTIONS 5, 1, [anon_sym_SLASH_STAR]),
       (ACTIONS 7, 1, [anon_sym_SLASH_SLASH_SLASH]), (ACTIONS 9, 1, [sym__block_comment]),
       (ACTIONS 11, 1, [sym__documentation_block_comment]), (STATE 1724, 2, [sym_comment,
       sym_documentation_comment]), (ACTIONS 3817, 4, [ts_builtin_sym_end, anon_sym_LPAREN,
       anon_sym_AT, sym_part_of_builtin]), (ACTIONS 3819, 20, [anon_sym_enum, anon_sym_final,
       anon_sym_inline, anon_sym_class, anon_sym_extension, sym_void_type, anon_sym_var,
       anon_sym_Function, anon_sym_get, anon_sym_interface, anon_sym_base, anon_sym_abstract,
       anon_sym_sealed, anon_sym_mixin, anon_sym_set, anon_sym_typedef, sym_const_builtin,
       anon_sym_late, anon_sym_external, sym_identifier])]),
     (88954, 8, [(ACTIONS 3, 1, [anon_sym_SLASH_SLASH]), (ACTIONS 5, 1, [anon_sym_SLASH_STAR]),
       (ACTIONS 7, 1, [anon_sym_SLASH_SLASH_SLASH]), (ACTIONS 9, 1, [sym__block_comment]),
       (ACTIONS 11, 1, [sym__documentation_block_comment]), (STATE 1725, 2, [sym_comment,
       sym_documentation_comment]), (ACTIONS 3821, 4, [ts_builtin_sym_end, anon_sym_LPAREN,
       anon_sym_AT, sym_part_of_builtin]), (ACTIONS 3823, 20, [anon_sym_enum, anon_sym_final,
       anon_sym_inline, anon_sym_class, anon_sym_extension, sym_void_type, anon_sym_var,
       anon_sym_Function, anon_sym_get, anon_sym_interface, anon_sym_base, anon_sym_abstract,
       anon_sym_sealed, anon_sym_mixin, anon_sym_set, anon_sym_typedef, sym_const_builtin,
       anon_sym_late, anon_sym_external, sym_identifier])]),
     (89002, 19, [(ACTIONS 3, 1, [anon_sym_SLASH_SLASH]), (ACTIONS 5, 1,
       [anon_sym_SLASH_STAR]), (ACTIONS 7, 1, [anon_sym_SLASH_SLASH_SLASH]), (ACTIONS 9, 1,
       [sym__block_comment]), (ACTIONS 11, 1, [sym__documentation_block_comment]), (ACTIONS 708,
       1, [anon_sym_DQUOTE]), (ACTIONS 710, 1, [anon_sym_SQUOTE]), (ACTIONS 712, 1,
       [anon_sym_DQUOTE_DQUOTE_DQUOTE]), (ACTIONS 714, 1, [anon_sym_SQUOTE_SQUOTE_SQUOTE]),
       (ACTIONS 716, 1, [anon_sym_r_DQUOTE]), (ACTIONS 718, 1, [anon_sym_r_SQUOTE]), (ACTIONS
       720, 1, [anon_sym_r_DQUOTE_DQUOTE_DQUOTE]), (ACTIONS 722, 1,
       [anon_sym_r_SQUOTE_SQUOTE_SQUOTE]), (ACTIONS 3827, 1, [anon_sym_async]), (STATE 595, 1,
       [aux_sym_string_literal_repeat1]), (STATE 2458, 1, [sym_string_literal]), (STATE 1726, 2,
       [sym_comment, sym_documentation_comment]), (ACTIONS 3825, 5, [anon_sym_LBRACE,
       anon_sym_SEMI, anon_sym_EQ_GT, anon_sym_async_STAR, anon_sym_sync_STAR]), (STATE 729, 8,
       [sym__string_literal_double_quotes, sym__string_literal_single_quotes,
       sym__string_literal_double_quotes_multiple, sym__string_literal_single_quotes_multiple,
       sym__raw_string_literal_double_quotes, sym__raw_string_literal_single_quotes,
       sym__raw_string_literal_double_quotes_multiple,
       sym__raw_string_literal_single_quotes_multiple])])]"

lemma small_run_627: "small_run 1724 88906 ts_small_parse_table_627 1727 89072"
  by (simp add: small_simps ts_small_parse_table_627_def)

definition ts_small_parse_table_628 :: "small_group list" where
  "ts_small_parse_table_628 = [
     (89072, 25, [(ACTIONS 3, 1, [anon_sym_SLASH_SLASH]), (ACTIONS 5, 1,
       [anon_sym_SLASH_STAR]), (ACTIONS 7, 1, [anon_sym_SLASH_SLASH_SLASH]), (ACTIONS 9, 1,
       [sym__block_comment]), (ACTIONS 11, 1, [sym__documentation_block_comment]), (ACTIONS 33,
       1, [sym_void_type]), (ACTIONS 45, 1, [anon_sym_Function]), (ACTIONS 876, 1,
       [anon_sym_LBRACE]), (ACTIONS 880, 1, [anon_sym_LBRACK]), (ACTIONS 884, 1,
       [anon_sym_LPAREN]), (ACTIONS 3161, 1, [anon_sym_LT]), (ACTIONS 3829, 1, [sym_identifier]),
       (STATE 1463, 1, [sym__function_builtin_identifier]), (STATE 1605, 1,
       [aux_sym__function_type_tails]), (STATE 1704, 1, [sym__function_type_tail]), (STATE 1796,
       1, [sym__type_not_function]), (STATE 1805, 1, [sym_record_type]), (STATE 1848, 1,
       [sym_function_type]), (STATE 1896, 1, [sym__type_not_void_not_function]), (STATE 2421, 1,
       [sym__type_name]), (STATE 2965, 1, [sym__type]), (STATE 3136, 1, [sym__outer_pattern]),
       (STATE 3171, 1, [sym_type_arguments]), (STATE 1727, 2, [sym_comment,
       sym_documentation_comment]), (STATE 3182, 5, [sym__parenthesized_pattern,
       sym_list_pattern, sym_map_pattern, sym_record_pattern, sym_object_pattern])]),
     (89153, 8, [(ACTIONS 3, 1, [anon_sym_SLASH_SLASH]), (ACTIONS 5, 1, [anon_sym_SLASH_STAR]),
       (ACTIONS 7, 1, [anon_sym_SLASH_SLASH_SLASH]), (ACTIONS 9, 1, [sym__block_comment]),
       (ACTIONS 11, 1, [sym__documentation_block_comment]), (STATE 1728, 2, [sym_comment,
       sym_documentation_comment]), (ACTIONS 3832, 3, [ts_builtin_sym_end, anon_sym_LPAREN,
       anon_sym_AT]), (ACTIONS 3834, 20, [anon_sym_enum, anon_sym_final, anon_sym_inline,
       anon_sym_class, anon_sym_extension, sym_void_type, anon_sym_var, anon_sym_Function,
       anon_sym_get, anon_sym_interface, anon_sym_base, anon_sym_abstract, anon_sym_sealed,
       anon_sym_mixin, anon_sym_set, anon_sym_typedef, sym_const_builtin, anon_sym_late,
       anon_sym_external, sym_identifier])]),
     (89200, 8, [(ACTIONS 3, 1, [anon_sym_SLASH_SLASH]), (ACTIONS 5, 1, [anon_sym_SLASH_STAR]),
       (ACTIONS 7, 1, [anon_sym_SLASH_SLASH_SLASH]), (ACTIONS 9, 1, [sym__block_comment]),
       (ACTIONS 11, 1, [sym__documentation_block_comment]), (STATE 1729, 2, [sym_comment,
       sym_documentation_comment]), (ACTIONS 3836, 3, [ts_builtin_sym_end, anon_sym_LPAREN,
       anon_sym_AT]), (ACTIONS 3838, 20, [anon_sym_enum, anon_sym_final, anon_sym_inline,
       anon_sym_class, anon_sym_extension, sym_void_type, anon_sym_var, anon_sym_Function,
       anon_sym_get, anon_sym_interface, anon_sym_base, anon_sym_abstract, anon_sym_sealed,
       anon_sym_mixin, anon_sym_set, anon_sym_typedef, sym_const_builtin, anon_sym_late,
       anon_sym_external, sym_identifier])])]"

lemma small_run_628: "small_run 1727 89072 ts_small_parse_table_628 1730 89247"
  by (simp add: small_simps ts_small_parse_table_628_def)

definition ts_small_parse_table_629 :: "small_group list" where
  "ts_small_parse_table_629 = [
     (89247, 8, [(ACTIONS 3, 1, [anon_sym_SLASH_SLASH]), (ACTIONS 5, 1, [anon_sym_SLASH_STAR]),
       (ACTIONS 7, 1, [anon_sym_SLASH_SLASH_SLASH]), (ACTIONS 9, 1, [sym__block_comment]),
       (ACTIONS 11, 1, [sym__documentation_block_comment]), (STATE 1730, 2, [sym_comment,
       sym_documentation_comment]), (ACTIONS 3840, 3, [ts_builtin_sym_end, anon_sym_LPAREN,
       anon_sym_AT]), (ACTIONS 3842, 20, [anon_sym_enum, anon_sym_final, anon_sym_inline,
       anon_sym_class, anon_sym_extension, sym_void_type, anon_sym_var, anon_sym_Function,
       anon_sym_get, anon_sym_interface, anon_sym_base, anon_sym_abstract, anon_sym_sealed,
       anon_sym_mixin, anon_sym_set, anon_sym_typedef, sym_const_builtin, anon_sym_late,
       anon_sym_external, sym_identifier])]),
     (89294, 8, [(ACTIONS 3, 1, [anon_sym_SLASH_SLASH]), (ACTIONS 5, 1, [anon_sym_SLASH_STAR]),
       (ACTIONS 7, 1, [anon_sym_SLASH_SLASH_SLASH]), (ACTIONS 9, 1, [sym__block_comment]),
       (ACTIONS 11, 1, [sym__documentation_block_comment]), (STATE 1731, 2, [sym_comment,
       sym_documentation_comment]), (ACTIONS 3844, 3, [ts_builtin_sym_end, anon_sym_LPAREN,
       anon_sym_AT]), (ACTIONS 3846, 20, [anon_sym_enum, anon_sym_final, anon_sym_inline,
       anon_sym_class, anon_sym_extension, sym_void_type, anon_sym_var, anon_sym_Function,
       anon_sym_get, anon_sym_interface, anon_sym_base, anon_sym_abstract, anon_sym_sealed,
       anon_sym_mixin, anon_sym_set, anon_sym_typedef, sym_const_builtin, anon_sym_late,
       anon_sym_external, sym_identifier])]),
     (89341, 8, [(ACTIONS 3, 1, [anon_sym_SLASH_SLASH]), (ACTIONS 5, 1, [anon_sym_SLASH_STAR]),
       (ACTIONS 7, 1, [anon_sym_SLASH_SLASH_SLASH]), (ACTIONS 9, 1, [sym__block_comment]),
       (ACTIONS 11, 1, [sym__documentation_block_comment]), (STATE 1732, 2, [sym_comment,
       sym_documentation_comment]), (ACTIONS 3848, 3, [ts_builtin_sym_end, anon_sym_LPAREN,
       anon_sym_AT]), (ACTIONS 3850, 20, [anon_sym_enum, anon_sym_final, anon_sym_inline,
       anon_sym_class, anon_sym_extension, sym_void_type, anon_sym_var, anon_sym_Function,
       anon_sym_get, anon_sym_interface, anon_sym_base, anon_sym_abstract, anon_sym_sealed,
       anon_sym_mixin, anon_sym_set, anon_sym_typedef, sym_const_builtin, anon_sym_late,
       anon_sym_external, sym_identifier])])]"

lemma small_run_629: "small_run 1730 89247 ts_small_parse_table_629 1733 89388"
  by (simp add: small_simps ts_small_parse_table_629_def)

definition ts_small_parse_table_630 :: "small_group list" where
  "ts_small_parse_table_630 = [
     (89388, 8, [(ACTIONS 3, 1, [anon_sym_SLASH_SLASH]), (ACTIONS 5, 1, [anon_sym_SLASH_STAR]),
       (ACTIONS 7, 1, [anon_sym_SLASH_SLASH_SLASH]), (ACTIONS 9, 1, [sym__block_comment]),
       (ACTIONS 11, 1, [sym__documentation_block_comment]), (STATE 1733, 2, [sym_comment,
       sym_documentation_comment]), (ACTIONS 3852, 3, [ts_builtin_sym_end, anon_sym_LPAREN,
       anon_sym_AT]), (ACTIONS 3854, 20, [anon_sym_enum, anon_sym_final, anon_sym_inline,
       anon_sym_class, anon_sym_extension, sym_void_type, anon_sym_var, anon_sym_Function,
       anon_sym_get, anon_sym_interface, anon_sym_base, anon_sym_abstract, anon_sym_sealed,
       anon_sym_mixin, anon_sym_set, anon_sym_typedef, sym_const_builtin, anon_sym_late,
       anon_sym_external, sym_identifier])]),
     (89435, 8, [(ACTIONS 3, 1, [anon_sym_SLASH_SLASH]), (ACTIONS 5, 1, [anon_sym_SLASH_STAR]),
       (ACTIONS 7, 1, [anon_sym_SLASH_SLASH_SLASH]), (ACTIONS 9, 1, [sym__block_comment]),
       (ACTIONS 11, 1, [sym__documentation_block_comment]), (STATE 1734, 2, [sym_comment,
       sym_documentation_comment]), (ACTIONS 3856, 3, [ts_builtin_sym_end, anon_sym_LPAREN,
       anon_sym_AT]), (ACTIONS 3858, 20, [anon_sym_enum, anon_sym_final, anon_sym_inline,
       anon_sym_class, anon_sym_extension, sym_void_type, anon_sym_var, anon_sym_Function,
       anon_sym_get, anon_sym_interface, anon_sym_base, anon_sym_abstract, anon_sym_sealed,
       anon_sym_mixin, anon_sym_set, anon_sym_typedef, sym_const_builtin, anon_sym_late,
       anon_sym_external, sym_identifier])]),
     (89482, 8, [(ACTIONS 3, 1, [anon_sym_SLASH_SLASH]), (ACTIONS 5, 1, [anon_sym_SLASH_STAR]),
       (ACTIONS 7, 1, [anon_sym_SLASH_SLASH_SLASH]), (ACTIONS 9, 1, [sym__block_comment]),
       (ACTIONS 11, 1, [sym__documentation_block_comment]), (STATE 1735, 2, [sym_comment,
       sym_documentation_comment]), (ACTIONS 3860, 3, [ts_builtin_sym_end, anon_sym_LPAREN,
       anon_sym_AT]), (ACTIONS 3862, 20, [anon_sym_enum, anon_sym_final, anon_sym_inline,
       anon_sym_class, anon_sym_extension, sym_void_type, anon_sym_var, anon_sym_Function,
       anon_sym_get, anon_sym_interface, anon_sym_base, anon_sym_abstract, anon_sym_sealed,
       anon_sym_mixin, anon_sym_set, anon_sym_typedef, sym_const_builtin, anon_sym_late,
       anon_sym_external, sym_identifier])])]"

lemma small_run_630: "small_run 1733 89388 ts_small_parse_table_630 1736 89529"
  by (simp add: small_simps ts_small_parse_table_630_def)

definition ts_small_parse_table_631 :: "small_group list" where
  "ts_small_parse_table_631 = [
     (89529, 8, [(ACTIONS 3, 1, [anon_sym_SLASH_SLASH]), (ACTIONS 5, 1, [anon_sym_SLASH_STAR]),
       (ACTIONS 7, 1, [anon_sym_SLASH_SLASH_SLASH]), (ACTIONS 9, 1, [sym__block_comment]),
       (ACTIONS 11, 1, [sym__documentation_block_comment]), (STATE 1736, 2, [sym_comment,
       sym_documentation_comment]), (ACTIONS 3864, 3, [ts_builtin_sym_end, anon_sym_LPAREN,
       anon_sym_AT]), (ACTIONS 3866, 20, [anon_sym_enum, anon_sym_final, anon_sym_inline,
       anon_sym_class, anon_sym_extension, sym_void_type, anon_sym_var, anon_sym_Function,
       anon_sym_get, anon_sym_interface, anon_sym_base, anon_sym_abstract, anon_sym_sealed,
       anon_sym_mixin, anon_sym_set, anon_sym_typedef, sym_const_builtin, anon_sym_late,
       anon_sym_external, sym_identifier])]),
     (89576, 8, [(ACTIONS 3, 1, [anon_sym_SLASH_SLASH]), (ACTIONS 5, 1, [anon_sym_SLASH_STAR]),
       (ACTIONS 7, 1, [anon_sym_SLASH_SLASH_SLASH]), (ACTIONS 9, 1, [sym__block_comment]),
       (ACTIONS 11, 1, [sym__documentation_block_comment]), (STATE 1737, 2, [sym_comment,
       sym_documentation_comment]), (ACTIONS 3868, 3, [ts_builtin_sym_end, anon_sym_LPAREN,
       anon_sym_AT]), (ACTIONS 3870, 20, [anon_sym_enum, anon_sym_final, anon_sym_inline,
       anon_sym_class, anon_sym_extension, sym_void_type, anon_sym_var, anon_sym_Function,
       anon_sym_get, anon_sym_interface, anon_sym_base, anon_sym_abstract, anon_sym_sealed,
       anon_sym_mixin, anon_sym_set, anon_sym_typedef, sym_const_builtin, anon_sym_late,
       anon_sym_external, sym_identifier])]),
     (89623, 8, [(ACTIONS 3, 1, [anon_sym_SLASH_SLASH]), (ACTIONS 5, 1, [anon_sym_SLASH_STAR]),
       (ACTIONS 7, 1, [anon_sym_SLASH_SLASH_SLASH]), (ACTIONS 9, 1, [sym__block_comment]),
       (ACTIONS 11, 1, [sym__documentation_block_comment]), (STATE 1738, 2, [sym_comment,
       sym_documentation_comment]), (ACTIONS 3872, 3, [ts_builtin_sym_end, anon_sym_LPAREN,
       anon_sym_AT]), (ACTIONS 3874, 20, [anon_sym_enum, anon_sym_final, anon_sym_inline,
       anon_sym_class, anon_sym_extension, sym_void_type, anon_sym_var, anon_sym_Function,
       anon_sym_get, anon_sym_interface, anon_sym_base, anon_sym_abstract, anon_sym_sealed,
       anon_sym_mixin, anon_sym_set, anon_sym_typedef, sym_const_builtin, anon_sym_late,
       anon_sym_external, sym_identifier])])]"

lemma small_run_631: "small_run 1736 89529 ts_small_parse_table_631 1739 89670"
  by (simp add: small_simps ts_small_parse_table_631_def)

definition ts_small_parse_table_632 :: "small_group list" where
  "ts_small_parse_table_632 = [
     (89670, 8, [(ACTIONS 3, 1, [anon_sym_SLASH_SLASH]), (ACTIONS 5, 1, [anon_sym_SLASH_STAR]),
       (ACTIONS 7, 1, [anon_sym_SLASH_SLASH_SLASH]), (ACTIONS 9, 1, [sym__block_comment]),
       (ACTIONS 11, 1, [sym__documentation_block_comment]), (STATE 1739, 2, [sym_comment,
       sym_documentation_comment]), (ACTIONS 3876, 3, [ts_builtin_sym_end, anon_sym_LPAREN,
       anon_sym_AT]), (ACTIONS 3878, 20, [anon_sym_enum, anon_sym_final, anon_sym_inline,
       anon_sym_class, anon_sym_extension, sym_void_type, anon_sym_var, anon_sym_Function,
       anon_sym_get, anon_sym_interface, anon_sym_base, anon_sym_abstract, anon_sym_sealed,
       anon_sym_mixin, anon_sym_set, anon_sym_typedef, sym_const_builtin, anon_sym_late,
       anon_sym_external, sym_identifier])]),
     (89717, 8, [(ACTIONS 3, 1, [anon_sym_SLASH_SLASH]), (ACTIONS 5, 1, [anon_sym_SLASH_STAR]),
       (ACTIONS 7, 1, [anon_sym_SLASH_SLASH_SLASH]), (ACTIONS 9, 1, [sym__block_comment]),
       (ACTIONS 11, 1, [sym__documentation_block_comment]), (STATE 1740, 2, [sym_comment,
       sym_documentation_comment]), (ACTIONS 3880, 3, [ts_builtin_sym_end, anon_sym_LPAREN,
       anon_sym_AT]), (ACTIONS 3882, 20, [anon_sym_enum, anon_sym_final, anon_sym_inline,
       anon_sym_class, anon_sym_extension, sym_void_type, anon_sym_var, anon_sym_Function,
       anon_sym_get, anon_sym_interface, anon_sym_base, anon_sym_abstract, anon_sym_sealed,
       anon_sym_mixin, anon_sym_set, anon_sym_typedef, sym_const_builtin, anon_sym_late,
       anon_sym_external, sym_identifier])]),
     (89764, 8, [(ACTIONS 3, 1, [anon_sym_SLASH_SLASH]), (ACTIONS 5, 1, [anon_sym_SLASH_STAR]),
       (ACTIONS 7, 1, [anon_sym_SLASH_SLASH_SLASH]), (ACTIONS 9, 1, [sym__block_comment]),
       (ACTIONS 11, 1, [sym__documentation_block_comment]), (STATE 1741, 2, [sym_comment,
       sym_documentation_comment]), (ACTIONS 3884, 3, [ts_builtin_sym_end, anon_sym_LPAREN,
       anon_sym_AT]), (ACTIONS 3886, 20, [anon_sym_enum, anon_sym_final, anon_sym_inline,
       anon_sym_class, anon_sym_extension, sym_void_type, anon_sym_var, anon_sym_Function,
       anon_sym_get, anon_sym_interface, anon_sym_base, anon_sym_abstract, anon_sym_sealed,
       anon_sym_mixin, anon_sym_set, anon_sym_typedef, sym_const_builtin, anon_sym_late,
       anon_sym_external, sym_identifier])])]"

lemma small_run_632: "small_run 1739 89670 ts_small_parse_table_632 1742 89811"
  by (simp add: small_simps ts_small_parse_table_632_def)

definition ts_small_parse_table_633 :: "small_group list" where
  "ts_small_parse_table_633 = [
     (89811, 8, [(ACTIONS 3, 1, [anon_sym_SLASH_SLASH]), (ACTIONS 5, 1, [anon_sym_SLASH_STAR]),
       (ACTIONS 7, 1, [anon_sym_SLASH_SLASH_SLASH]), (ACTIONS 9, 1, [sym__block_comment]),
       (ACTIONS 11, 1, [sym__documentation_block_comment]), (STATE 1742, 2, [sym_comment,
       sym_documentation_comment]), (ACTIONS 3888, 3, [ts_builtin_sym_end, anon_sym_LPAREN,
       anon_sym_AT]), (ACTIONS 3890, 20, [anon_sym_enum, anon_sym_final, anon_sym_inline,
       anon_sym_class, anon_sym_extension, sym_void_type, anon_sym_var, anon_sym_Function,
       anon_sym_get, anon_sym_interface, anon_sym_base, anon_sym_abstract, anon_sym_sealed,
       anon_sym_mixin, anon_sym_set, anon_sym_typedef, sym_const_builtin, anon_sym_late,
       anon_sym_external, sym_identifier])]),
     (89858, 8, [(ACTIONS 3, 1, [anon_sym_SLASH_SLASH]), (ACTIONS 5, 1, [anon_sym_SLASH_STAR]),
       (ACTIONS 7, 1, [anon_sym_SLASH_SLASH_SLASH]), (ACTIONS 9, 1, [sym__block_comment]),
       (ACTIONS 11, 1, [sym__documentation_block_comment]), (STATE 1743, 2, [sym_comment,
       sym_documentation_comment]), (ACTIONS 3892, 3, [ts_builtin_sym_end, anon_sym_LPAREN,
       anon_sym_AT]), (ACTIONS 3894, 20, [anon_sym_enum, anon_sym_final, anon_sym_inline,
       anon_sym_class, anon_sym_extension, sym_void_type, anon_sym_var, anon_sym_Function,
       anon_sym_get, anon_sym_interface, anon_sym_base, anon_sym_abstract, anon_sym_sealed,
       anon_sym_mixin, anon_sym_set, anon_sym_typedef, sym_const_builtin, anon_sym_late,
       anon_sym_external, sym_identifier])]),
     (89905, 8, [(ACTIONS 3, 1, [anon_sym_SLASH_SLASH]), (ACTIONS 5, 1, [anon_sym_SLASH_STAR]),
       (ACTIONS 7, 1, [anon_sym_SLASH_SLASH_SLASH]), (ACTIONS 9, 1, [sym__block_comment]),
       (ACTIONS 11, 1, [sym__documentation_block_comment]), (STATE 1744, 2, [sym_comment,
       sym_documentation_comment]), (ACTIONS 3896, 3, [ts_builtin_sym_end, anon_sym_LPAREN,
       anon_sym_AT]), (ACTIONS 3898, 20, [anon_sym_enum, anon_sym_final, anon_sym_inline,
       anon_sym_class, anon_sym_extension, sym_void_type, anon_sym_var, anon_sym_Function,
       anon_sym_get, anon_sym_interface, anon_sym_base, anon_sym_abstract, anon_sym_sealed,
       anon_sym_mixin, anon_sym_set, anon_sym_typedef, sym_const_builtin, anon_sym_late,
       anon_sym_external, sym_identifier])])]"

lemma small_run_633: "small_run 1742 89811 ts_small_parse_table_633 1745 89952"
  by (simp add: small_simps ts_small_parse_table_633_def)

definition ts_small_parse_table_634 :: "small_group list" where
  "ts_small_parse_table_634 = [
     (89952, 8, [(ACTIONS 3, 1, [anon_sym_SLASH_SLASH]), (ACTIONS 5, 1, [anon_sym_SLASH_STAR]),
       (ACTIONS 7, 1, [anon_sym_SLASH_SLASH_SLASH]), (ACTIONS 9, 1, [sym__block_comment]),
       (ACTIONS 11, 1, [sym__documentation_block_comment]), (STATE 1745, 2, [sym_comment,
       sym_documentation_comment]), (ACTIONS 3900, 3, [ts_builtin_sym_end, anon_sym_LPAREN,
       anon_sym_AT]), (ACTIONS 3902, 20, [anon_sym_enum, anon_sym_final, anon_sym_inline,
       anon_sym_class, anon_sym_extension, sym_void_type, anon_sym_var, anon_sym_Function,
       anon_sym_get, anon_sym_interface, anon_sym_base, anon_sym_abstract, anon_sym_sealed,
       anon_sym_mixin, anon_sym_set, anon_sym_typedef, sym_const_builtin, anon_sym_late,
       anon_sym_external, sym_identifier])]),
     (89999, 8, [(ACTIONS 3, 1, [anon_sym_SLASH_SLASH]), (ACTIONS 5, 1, [anon_sym_SLASH_STAR]),
       (ACTIONS 7, 1, [anon_sym_SLASH_SLASH_SLASH]), (ACTIONS 9, 1, [sym__block_comment]),
       (ACTIONS 11, 1, [sym__documentation_block_comment]), (STATE 1746, 2, [sym_comment,
       sym_documentation_comment]), (ACTIONS 3904, 3, [ts_builtin_sym_end, anon_sym_LPAREN,
       anon_sym_AT]), (ACTIONS 3906, 20, [anon_sym_enum, anon_sym_final, anon_sym_inline,
       anon_sym_class, anon_sym_extension, sym_void_type, anon_sym_var, anon_sym_Function,
       anon_sym_get, anon_sym_interface, anon_sym_base, anon_sym_abstract, anon_sym_sealed,
       anon_sym_mixin, anon_sym_set, anon_sym_typedef, sym_const_builtin, anon_sym_late,
       anon_sym_external, sym_identifier])]),
     (90046, 8, [(ACTIONS 3, 1, [anon_sym_SLASH_SLASH]), (ACTIONS 5, 1, [anon_sym_SLASH_STAR]),
       (ACTIONS 7, 1, [anon_sym_SLASH_SLASH_SLASH]), (ACTIONS 9, 1, [sym__block_comment]),
       (ACTIONS 11, 1, [sym__documentation_block_comment]), (STATE 1747, 2, [sym_comment,
       sym_documentation_comment]), (ACTIONS 3908, 3, [ts_builtin_sym_end, anon_sym_LPAREN,
       anon_sym_AT]), (ACTIONS 3910, 20, [anon_sym_enum, anon_sym_final, anon_sym_inline,
       anon_sym_class, anon_sym_extension, sym_void_type, anon_sym_var, anon_sym_Function,
       anon_sym_get, anon_sym_interface, anon_sym_base, anon_sym_abstract, anon_sym_sealed,
       anon_sym_mixin, anon_sym_set, anon_sym_typedef, sym_const_builtin, anon_sym_late,
       anon_sym_external, sym_identifier])])]"

lemma small_run_634: "small_run 1745 89952 ts_small_parse_table_634 1748 90093"
  by (simp add: small_simps ts_small_parse_table_634_def)

definition ts_small_parse_table_635 :: "small_group list" where
  "ts_small_parse_table_635 = [
     (90093, 8, [(ACTIONS 3, 1, [anon_sym_SLASH_SLASH]), (ACTIONS 5, 1, [anon_sym_SLASH_STAR]),
       (ACTIONS 7, 1, [anon_sym_SLASH_SLASH_SLASH]), (ACTIONS 9, 1, [sym__block_comment]),
       (ACTIONS 11, 1, [sym__documentation_block_comment]), (STATE 1748, 2, [sym_comment,
       sym_documentation_comment]), (ACTIONS 3912, 3, [ts_builtin_sym_end, anon_sym_LPAREN,
       anon_sym_AT]), (ACTIONS 3914, 20, [anon_sym_enum, anon_sym_final, anon_sym_inline,
       anon_sym_class, anon_sym_extension, sym_void_type, anon_sym_var, anon_sym_Function,
       anon_sym_get, anon_sym_interface, anon_sym_base, anon_sym_abstract, anon_sym_sealed,
       anon_sym_mixin, anon_sym_set, anon_sym_typedef, sym_const_builtin, anon_sym_late,
       anon_sym_external, sym_identifier])]),
     (90140, 8, [(ACTIONS 3, 1, [anon_sym_SLASH_SLASH]), (ACTIONS 5, 1, [anon_sym_SLASH_STAR]),
       (ACTIONS 7, 1, [anon_sym_SLASH_SLASH_SLASH]), (ACTIONS 9, 1, [sym__block_comment]),
       (ACTIONS 11, 1, [sym__documentation_block_comment]), (STATE 1749, 2, [sym_comment,
       sym_documentation_comment]), (ACTIONS 3916, 3, [ts_builtin_sym_end, anon_sym_LPAREN,
       anon_sym_AT]), (ACTIONS 3918, 20, [anon_sym_enum, anon_sym_final, anon_sym_inline,
       anon_sym_class, anon_sym_extension, sym_void_type, anon_sym_var, anon_sym_Function,
       anon_sym_get, anon_sym_interface, anon_sym_base, anon_sym_abstract, anon_sym_sealed,
       anon_sym_mixin, anon_sym_set, anon_sym_typedef, sym_const_builtin, anon_sym_late,
       anon_sym_external, sym_identifier])]),
     (90187, 8, [(ACTIONS 3, 1, [anon_sym_SLASH_SLASH]), (ACTIONS 5, 1, [anon_sym_SLASH_STAR]),
       (ACTIONS 7, 1, [anon_sym_SLASH_SLASH_SLASH]), (ACTIONS 9, 1, [sym__block_comment]),
       (ACTIONS 11, 1, [sym__documentation_block_comment]), (STATE 1750, 2, [sym_comment,
       sym_documentation_comment]), (ACTIONS 3920, 3, [ts_builtin_sym_end, anon_sym_LPAREN,
       anon_sym_AT]), (ACTIONS 3922, 20, [anon_sym_enum, anon_sym_final, anon_sym_inline,
       anon_sym_class, anon_sym_extension, sym_void_type, anon_sym_var, anon_sym_Function,
       anon_sym_get, anon_sym_interface, anon_sym_base, anon_sym_abstract, anon_sym_sealed,
       anon_sym_mixin, anon_sym_set, anon_sym_typedef, sym_const_builtin, anon_sym_late,
       anon_sym_external, sym_identifier])])]"

lemma small_run_635: "small_run 1748 90093 ts_small_parse_table_635 1751 90234"
  by (simp add: small_simps ts_small_parse_table_635_def)

definition ts_small_parse_table_636 :: "small_group list" where
  "ts_small_parse_table_636 = [
     (90234, 8, [(ACTIONS 3, 1, [anon_sym_SLASH_SLASH]), (ACTIONS 5, 1, [anon_sym_SLASH_STAR]),
       (ACTIONS 7, 1, [anon_sym_SLASH_SLASH_SLASH]), (ACTIONS 9, 1, [sym__block_comment]),
       (ACTIONS 11, 1, [sym__documentation_block_comment]), (STATE 1751, 2, [sym_comment,
       sym_documentation_comment]), (ACTIONS 3924, 3, [ts_builtin_sym_end, anon_sym_LPAREN,
       anon_sym_AT]), (ACTIONS 3926, 20, [anon_sym_enum, anon_sym_final, anon_sym_inline,
       anon_sym_class, anon_sym_extension, sym_void_type, anon_sym_var, anon_sym_Function,
       anon_sym_get, anon_sym_interface, anon_sym_base, anon_sym_abstract, anon_sym_sealed,
       anon_sym_mixin, anon_sym_set, anon_sym_typedef, sym_const_builtin, anon_sym_late,
       anon_sym_external, sym_identifier])]),
     (90281, 8, [(ACTIONS 3, 1, [anon_sym_SLASH_SLASH]), (ACTIONS 5, 1, [anon_sym_SLASH_STAR]),
       (ACTIONS 7, 1, [anon_sym_SLASH_SLASH_SLASH]), (ACTIONS 9, 1, [sym__block_comment]),
       (ACTIONS 11, 1, [sym__documentation_block_comment]), (STATE 1752, 2, [sym_comment,
       sym_documentation_comment]), (ACTIONS 3928, 3, [ts_builtin_sym_end, anon_sym_LPAREN,
       anon_sym_AT]), (ACTIONS 3930, 20, [anon_sym_enum, anon_sym_final, anon_sym_inline,
       anon_sym_class, anon_sym_extension, sym_void_type, anon_sym_var, anon_sym_Function,
       anon_sym_get, anon_sym_interface, anon_sym_base, anon_sym_abstract, anon_sym_sealed,
       anon_sym_mixin, anon_sym_set, anon_sym_typedef, sym_const_builtin, anon_sym_late,
       anon_sym_external, sym_identifier])]),
     (90328, 8, [(ACTIONS 3, 1, [anon_sym_SLASH_SLASH]), (ACTIONS 5, 1, [anon_sym_SLASH_STAR]),
       (ACTIONS 7, 1, [anon_sym_SLASH_SLASH_SLASH]), (ACTIONS 9, 1, [sym__block_comment]),
       (ACTIONS 11, 1, [sym__documentation_block_comment]), (STATE 1753, 2, [sym_comment,
       sym_documentation_comment]), (ACTIONS 3932, 3, [ts_builtin_sym_end, anon_sym_LPAREN,
       anon_sym_AT]), (ACTIONS 3934, 20, [anon_sym_enum, anon_sym_final, anon_sym_inline,
       anon_sym_class, anon_sym_extension, sym_void_type, anon_sym_var, anon_sym_Function,
       anon_sym_get, anon_sym_interface, anon_sym_base, anon_sym_abstract, anon_sym_sealed,
       anon_sym_mixin, anon_sym_set, anon_sym_typedef, sym_const_builtin, anon_sym_late,
       anon_sym_external, sym_identifier])])]"

lemma small_run_636: "small_run 1751 90234 ts_small_parse_table_636 1754 90375"
  by (simp add: small_simps ts_small_parse_table_636_def)

definition ts_small_parse_table_637 :: "small_group list" where
  "ts_small_parse_table_637 = [
     (90375, 8, [(ACTIONS 3, 1, [anon_sym_SLASH_SLASH]), (ACTIONS 5, 1, [anon_sym_SLASH_STAR]),
       (ACTIONS 7, 1, [anon_sym_SLASH_SLASH_SLASH]), (ACTIONS 9, 1, [sym__block_comment]),
       (ACTIONS 11, 1, [sym__documentation_block_comment]), (STATE 1754, 2, [sym_comment,
       sym_documentation_comment]), (ACTIONS 3936, 3, [ts_builtin_sym_end, anon_sym_LPAREN,
       anon_sym_AT]), (ACTIONS 3938, 20, [anon_sym_enum, anon_sym_final, anon_sym_inline,
       anon_sym_class, anon_sym_extension, sym_void_type, anon_sym_var, anon_sym_Function,
       anon_sym_get, anon_sym_interface, anon_sym_base, anon_sym_abstract, anon_sym_sealed,
       anon_sym_mixin, anon_sym_set, anon_sym_typedef, sym_const_builtin, anon_sym_late,
       anon_sym_external, sym_identifier])]),
     (90422, 8, [(ACTIONS 3, 1, [anon_sym_SLASH_SLASH]), (ACTIONS 5, 1, [anon_sym_SLASH_STAR]),
       (ACTIONS 7, 1, [anon_sym_SLASH_SLASH_SLASH]), (ACTIONS 9, 1, [sym__block_comment]),
       (ACTIONS 11, 1, [sym__documentation_block_comment]), (STATE 1755, 2, [sym_comment,
       sym_documentation_comment]), (ACTIONS 3940, 3, [ts_builtin_sym_end, anon_sym_LPAREN,
       anon_sym_AT]), (ACTIONS 3942, 20, [anon_sym_enum, anon_sym_final, anon_sym_inline,
       anon_sym_class, anon_sym_extension, sym_void_type, anon_sym_var, anon_sym_Function,
       anon_sym_get, anon_sym_interface, anon_sym_base, anon_sym_abstract, anon_sym_sealed,
       anon_sym_mixin, anon_sym_set, anon_sym_typedef, sym_const_builtin, anon_sym_late,
       anon_sym_external, sym_identifier])]),
     (90469, 8, [(ACTIONS 3, 1, [anon_sym_SLASH_SLASH]), (ACTIONS 5, 1, [anon_sym_SLASH_STAR]),
       (ACTIONS 7, 1, [anon_sym_SLASH_SLASH_SLASH]), (ACTIONS 9, 1, [sym__block_comment]),
       (ACTIONS 11, 1, [sym__documentation_block_comment]), (STATE 1756, 2, [sym_comment,
       sym_documentation_comment]), (ACTIONS 3944, 3, [ts_builtin_sym_end, anon_sym_LPAREN,
       anon_sym_AT]), (ACTIONS 3946, 20, [anon_sym_enum, anon_sym_final, anon_sym_inline,
       anon_sym_class, anon_sym_extension, sym_void_type, anon_sym_var, anon_sym_Function,
       anon_sym_get, anon_sym_interface, anon_sym_base, anon_sym_abstract, anon_sym_sealed,
       anon_sym_mixin, anon_sym_set, anon_sym_typedef, sym_const_builtin, anon_sym_late,
       anon_sym_external, sym_identifier])])]"

lemma small_run_637: "small_run 1754 90375 ts_small_parse_table_637 1757 90516"
  by (simp add: small_simps ts_small_parse_table_637_def)

definition ts_small_parse_table_638 :: "small_group list" where
  "ts_small_parse_table_638 = [
     (90516, 8, [(ACTIONS 3, 1, [anon_sym_SLASH_SLASH]), (ACTIONS 5, 1, [anon_sym_SLASH_STAR]),
       (ACTIONS 7, 1, [anon_sym_SLASH_SLASH_SLASH]), (ACTIONS 9, 1, [sym__block_comment]),
       (ACTIONS 11, 1, [sym__documentation_block_comment]), (STATE 1757, 2, [sym_comment,
       sym_documentation_comment]), (ACTIONS 3948, 3, [ts_builtin_sym_end, anon_sym_LPAREN,
       anon_sym_AT]), (ACTIONS 3950, 20, [anon_sym_enum, anon_sym_final, anon_sym_inline,
       anon_sym_class, anon_sym_extension, sym_void_type, anon_sym_var, anon_sym_Function,
       anon_sym_get, anon_sym_interface, anon_sym_base, anon_sym_abstract, anon_sym_sealed,
       anon_sym_mixin, anon_sym_set, anon_sym_typedef, sym_const_builtin, anon_sym_late,
       anon_sym_external, sym_identifier])]),
     (90563, 8, [(ACTIONS 3, 1, [anon_sym_SLASH_SLASH]), (ACTIONS 5, 1, [anon_sym_SLASH_STAR]),
       (ACTIONS 7, 1, [anon_sym_SLASH_SLASH_SLASH]), (ACTIONS 9, 1, [sym__block_comment]),
       (ACTIONS 11, 1, [sym__documentation_block_comment]), (STATE 1758, 2, [sym_comment,
       sym_documentation_comment]), (ACTIONS 3952, 3, [ts_builtin_sym_end, anon_sym_LPAREN,
       anon_sym_AT]), (ACTIONS 3954, 20, [anon_sym_enum, anon_sym_final, anon_sym_inline,
       anon_sym_class, anon_sym_extension, sym_void_type, anon_sym_var, anon_sym_Function,
       anon_sym_get, anon_sym_interface, anon_sym_base, anon_sym_abstract, anon_sym_sealed,
       anon_sym_mixin, anon_sym_set, anon_sym_typedef, sym_const_builtin, anon_sym_late,
       anon_sym_external, sym_identifier])]),
     (90610, 25, [(ACTIONS 3, 1, [anon_sym_SLASH_SLASH]), (ACTIONS 5, 1,
       [anon_sym_SLASH_STAR]), (ACTIONS 7, 1, [anon_sym_SLASH_SLASH_SLASH]), (ACTIONS 9, 1,
       [sym__block_comment]), (ACTIONS 11, 1, [sym__documentation_block_comment]), (ACTIONS 33,
       1, [sym_void_type]), (ACTIONS 45, 1, [anon_sym_Function]), (ACTIONS 876, 1,
       [anon_sym_LBRACE]), (ACTIONS 880, 1, [anon_sym_LBRACK]), (ACTIONS 884, 1,
       [anon_sym_LPAREN]), (ACTIONS 3161, 1, [anon_sym_LT]), (ACTIONS 3956, 1, [sym_identifier]),
       (STATE 1463, 1, [sym__function_builtin_identifier]), (STATE 1605, 1,
       [aux_sym__function_type_tails]), (STATE 1704, 1, [sym__function_type_tail]), (STATE 1796,
       1, [sym__type_not_function]), (STATE 1805, 1, [sym_record_type]), (STATE 1848, 1,
       [sym_function_type]), (STATE 1896, 1, [sym__type_not_void_not_function]), (STATE 2421, 1,
       [sym__type_name]), (STATE 2987, 1, [sym__type]), (STATE 3136, 1, [sym__outer_pattern]),
       (STATE 3171, 1, [sym_type_arguments]), (STATE 1759, 2, [sym_comment,
       sym_documentation_comment]), (STATE 3182, 5, [sym__parenthesized_pattern,
       sym_list_pattern, sym_map_pattern, sym_record_pattern, sym_object_pattern])])]"

lemma small_run_638: "small_run 1757 90516 ts_small_parse_table_638 1760 90691"
  by (simp add: small_simps ts_small_parse_table_638_def)

definition ts_small_parse_table_639 :: "small_group list" where
  "ts_small_parse_table_639 = [
     (90691, 8, [(ACTIONS 3, 1, [anon_sym_SLASH_SLASH]), (ACTIONS 5, 1, [anon_sym_SLASH_STAR]),
       (ACTIONS 7, 1, [anon_sym_SLASH_SLASH_SLASH]), (ACTIONS 9, 1, [sym__block_comment]),
       (ACTIONS 11, 1, [sym__documentation_block_comment]), (STATE 1760, 2, [sym_comment,
       sym_documentation_comment]), (ACTIONS 3959, 3, [ts_builtin_sym_end, anon_sym_LPAREN,
       anon_sym_AT]), (ACTIONS 3961, 20, [anon_sym_enum, anon_sym_final, anon_sym_inline,
       anon_sym_class, anon_sym_extension, sym_void_type, anon_sym_var, anon_sym_Function,
       anon_sym_get, anon_sym_interface, anon_sym_base, anon_sym_abstract, anon_sym_sealed,
       anon_sym_mixin, anon_sym_set, anon_sym_typedef, sym_const_builtin, anon_sym_late,
       anon_sym_external, sym_identifier])]),
     (90738, 8, [(ACTIONS 3, 1, [anon_sym_SLASH_SLASH]), (ACTIONS 5, 1, [anon_sym_SLASH_STAR]),
       (ACTIONS 7, 1, [anon_sym_SLASH_SLASH_SLASH]), (ACTIONS 9, 1, [sym__block_comment]),
       (ACTIONS 11, 1, [sym__documentation_block_comment]), (STATE 1761, 2, [sym_comment,
       sym_documentation_comment]), (ACTIONS 3963, 3, [ts_builtin_sym_end, anon_sym_LPAREN,
       anon_sym_AT]), (ACTIONS 3965, 20, [anon_sym_enum, anon_sym_final, anon_sym_inline,
       anon_sym_class, anon_sym_extension, sym_void_type, anon_sym_var, anon_sym_Function,
       anon_sym_get, anon_sym_interface, anon_sym_base, anon_sym_abstract, anon_sym_sealed,
       anon_sym_mixin, anon_sym_set, anon_sym_typedef, sym_const_builtin, anon_sym_late,
       anon_sym_external, sym_identifier])]),
     (90785, 8, [(ACTIONS 3, 1, [anon_sym_SLASH_SLASH]), (ACTIONS 5, 1, [anon_sym_SLASH_STAR]),
       (ACTIONS 7, 1, [anon_sym_SLASH_SLASH_SLASH]), (ACTIONS 9, 1, [sym__block_comment]),
       (ACTIONS 11, 1, [sym__documentation_block_comment]), (STATE 1762, 2, [sym_comment,
       sym_documentation_comment]), (ACTIONS 3967, 3, [ts_builtin_sym_end, anon_sym_LPAREN,
       anon_sym_AT]), (ACTIONS 3969, 20, [anon_sym_enum, anon_sym_final, anon_sym_inline,
       anon_sym_class, anon_sym_extension, sym_void_type, anon_sym_var, anon_sym_Function,
       anon_sym_get, anon_sym_interface, anon_sym_base, anon_sym_abstract, anon_sym_sealed,
       anon_sym_mixin, anon_sym_set, anon_sym_typedef, sym_const_builtin, anon_sym_late,
       anon_sym_external, sym_identifier])])]"

lemma small_run_639: "small_run 1760 90691 ts_small_parse_table_639 1763 90832"
  by (simp add: small_simps ts_small_parse_table_639_def)

definition ts_small_parse_table_640 :: "small_group list" where
  "ts_small_parse_table_640 = [
     (90832, 8, [(ACTIONS 3, 1, [anon_sym_SLASH_SLASH]), (ACTIONS 5, 1, [anon_sym_SLASH_STAR]),
       (ACTIONS 7, 1, [anon_sym_SLASH_SLASH_SLASH]), (ACTIONS 9, 1, [sym__block_comment]),
       (ACTIONS 11, 1, [sym__documentation_block_comment]), (STATE 1763, 2, [sym_comment,
       sym_documentation_comment]), (ACTIONS 3971, 3, [ts_builtin_sym_end, anon_sym_LPAREN,
       anon_sym_AT]), (ACTIONS 3973, 20, [anon_sym_enum, anon_sym_final, anon_sym_inline,
       anon_sym_class, anon_sym_extension, sym_void_type, anon_sym_var, anon_sym_Function,
       anon_sym_get, anon_sym_interface, anon_sym_base, anon_sym_abstract, anon_sym_sealed,
       anon_sym_mixin, anon_sym_set, anon_sym_typedef, sym_const_builtin, anon_sym_late,
       anon_sym_external, sym_identifier])]),
     (90879, 25, [(ACTIONS 3, 1, [anon_sym_SLASH_SLASH]), (ACTIONS 5, 1,
       [anon_sym_SLASH_STAR]), (ACTIONS 7, 1, [anon_sym_SLASH_SLASH_SLASH]), (ACTIONS 9, 1,
       [sym__block_comment]), (ACTIONS 11, 1, [sym__documentation_block_comment]), (ACTIONS 33,
       1, [sym_void_type]), (ACTIONS 45, 1, [anon_sym_Function]), (ACTIONS 876, 1,
       [anon_sym_LBRACE]), (ACTIONS 880, 1, [anon_sym_LBRACK]), (ACTIONS 884, 1,
       [anon_sym_LPAREN]), (ACTIONS 3161, 1, [anon_sym_LT]), (ACTIONS 3956, 1, [sym_identifier]),
       (STATE 1463, 1, [sym__function_builtin_identifier]), (STATE 1605, 1,
       [aux_sym__function_type_tails]), (STATE 1704, 1, [sym__function_type_tail]), (STATE 1796,
       1, [sym__type_not_function]), (STATE 1805, 1, [sym_record_type]), (STATE 1848, 1,
       [sym_function_type]), (STATE 1896, 1, [sym__type_not_void_not_function]), (STATE 2421, 1,
       [sym__type_name]), (STATE 2987, 1, [sym__type]), (STATE 3171, 1, [sym_type_arguments]),
       (STATE 3413, 1, [sym__outer_pattern]), (STATE 1764, 2, [sym_comment,
       sym_documentation_comment]), (STATE 3182, 5, [sym__parenthesized_pattern,
       sym_list_pattern, sym_map_pattern, sym_record_pattern, sym_object_pattern])]),
     (90960, 8, [(ACTIONS 3, 1, [anon_sym_SLASH_SLASH]), (ACTIONS 5, 1, [anon_sym_SLASH_STAR]),
       (ACTIONS 7, 1, [anon_sym_SLASH_SLASH_SLASH]), (ACTIONS 9, 1, [sym__block_comment]),
       (ACTIONS 11, 1, [sym__documentation_block_comment]), (STATE 1765, 2, [sym_comment,
       sym_documentation_comment]), (ACTIONS 3975, 3, [ts_builtin_sym_end, anon_sym_LPAREN,
       anon_sym_AT]), (ACTIONS 3977, 20, [anon_sym_enum, anon_sym_final, anon_sym_inline,
       anon_sym_class, anon_sym_extension, sym_void_type, anon_sym_var, anon_sym_Function,
       anon_sym_get, anon_sym_interface, anon_sym_base, anon_sym_abstract, anon_sym_sealed,
       anon_sym_mixin, anon_sym_set, anon_sym_typedef, sym_const_builtin, anon_sym_late,
       anon_sym_external, sym_identifier])])]"

lemma small_run_640: "small_run 1763 90832 ts_small_parse_table_640 1766 91007"
  by (simp add: small_simps ts_small_parse_table_640_def)

definition ts_small_parse_table_641 :: "small_group list" where
  "ts_small_parse_table_641 = [
     (91007, 8, [(ACTIONS 3, 1, [anon_sym_SLASH_SLASH]), (ACTIONS 5, 1, [anon_sym_SLASH_STAR]),
       (ACTIONS 7, 1, [anon_sym_SLASH_SLASH_SLASH]), (ACTIONS 9, 1, [sym__block_comment]),
       (ACTIONS 11, 1, [sym__documentation_block_comment]), (STATE 1766, 2, [sym_comment,
       sym_documentation_comment]), (ACTIONS 3979, 3, [ts_builtin_sym_end, anon_sym_LPAREN,
       anon_sym_AT]), (ACTIONS 3981, 20, [anon_sym_enum, anon_sym_final, anon_sym_inline,
       anon_sym_class, anon_sym_extension, sym_void_type, anon_sym_var, anon_sym_Function,
       anon_sym_get, anon_sym_interface, anon_sym_base, anon_sym_abstract, anon_sym_sealed,
       anon_sym_mixin, anon_sym_set, anon_sym_typedef, sym_const_builtin, anon_sym_late,
       anon_sym_external, sym_identifier])]),
     (91054, 8, [(ACTIONS 3, 1, [anon_sym_SLASH_SLASH]), (ACTIONS 5, 1, [anon_sym_SLASH_STAR]),
       (ACTIONS 7, 1, [anon_sym_SLASH_SLASH_SLASH]), (ACTIONS 9, 1, [sym__block_comment]),
       (ACTIONS 11, 1, [sym__documentation_block_comment]), (STATE 1767, 2, [sym_comment,
       sym_documentation_comment]), (ACTIONS 3983, 3, [ts_builtin_sym_end, anon_sym_LPAREN,
       anon_sym_AT]), (ACTIONS 3985, 20, [anon_sym_enum, anon_sym_final, anon_sym_inline,
       anon_sym_class, anon_sym_extension, sym_void_type, anon_sym_var, anon_sym_Function,
       anon_sym_get, anon_sym_interface, anon_sym_base, anon_sym_abstract, anon_sym_sealed,
       anon_sym_mixin, anon_sym_set, anon_sym_typedef, sym_const_builtin, anon_sym_late,
       anon_sym_external, sym_identifier])]),
     (91101, 8, [(ACTIONS 3, 1, [anon_sym_SLASH_SLASH]), (ACTIONS 5, 1, [anon_sym_SLASH_STAR]),
       (ACTIONS 7, 1, [anon_sym_SLASH_SLASH_SLASH]), (ACTIONS 9, 1, [sym__block_comment]),
       (ACTIONS 11, 1, [sym__documentation_block_comment]), (STATE 1768, 2, [sym_comment,
       sym_documentation_comment]), (ACTIONS 3987, 3, [ts_builtin_sym_end, anon_sym_LPAREN,
       anon_sym_AT]), (ACTIONS 3989, 20, [anon_sym_enum, anon_sym_final, anon_sym_inline,
       anon_sym_class, anon_sym_extension, sym_void_type, anon_sym_var, anon_sym_Function,
       anon_sym_get, anon_sym_interface, anon_sym_base, anon_sym_abstract, anon_sym_sealed,
       anon_sym_mixin, anon_sym_set, anon_sym_typedef, sym_const_builtin, anon_sym_late,
       anon_sym_external, sym_identifier])])]"

lemma small_run_641: "small_run 1766 91007 ts_small_parse_table_641 1769 91148"
  by (simp add: small_simps ts_small_parse_table_641_def)

definition ts_small_parse_table_642 :: "small_group list" where
  "ts_small_parse_table_642 = [
     (91148, 8, [(ACTIONS 3, 1, [anon_sym_SLASH_SLASH]), (ACTIONS 5, 1, [anon_sym_SLASH_STAR]),
       (ACTIONS 7, 1, [anon_sym_SLASH_SLASH_SLASH]), (ACTIONS 9, 1, [sym__block_comment]),
       (ACTIONS 11, 1, [sym__documentation_block_comment]), (STATE 1769, 2, [sym_comment,
       sym_documentation_comment]), (ACTIONS 3991, 3, [ts_builtin_sym_end, anon_sym_LPAREN,
       anon_sym_AT]), (ACTIONS 3993, 20, [anon_sym_enum, anon_sym_final, anon_sym_inline,
       anon_sym_class, anon_sym_extension, sym_void_type, anon_sym_var, anon_sym_Function,
       anon_sym_get, anon_sym_interface, anon_sym_base, anon_sym_abstract, anon_sym_sealed,
       anon_sym_mixin, anon_sym_set, anon_sym_typedef, sym_const_builtin, anon_sym_late,
       anon_sym_external, sym_identifier])]),
     (91195, 8, [(ACTIONS 3, 1, [anon_sym_SLASH_SLASH]), (ACTIONS 5, 1, [anon_sym_SLASH_STAR]),
       (ACTIONS 7, 1, [anon_sym_SLASH_SLASH_SLASH]), (ACTIONS 9, 1, [sym__block_comment]),
       (ACTIONS 11, 1, [sym__documentation_block_comment]), (STATE 1770, 2, [sym_comment,
       sym_documentation_comment]), (ACTIONS 3995, 3, [ts_builtin_sym_end, anon_sym_LPAREN,
       anon_sym_AT]), (ACTIONS 3997, 20, [anon_sym_enum, anon_sym_final, anon_sym_inline,
       anon_sym_class, anon_sym_extension, sym_void_type, anon_sym_var, anon_sym_Function,
       anon_sym_get, anon_sym_interface, anon_sym_base, anon_sym_abstract, anon_sym_sealed,
       anon_sym_mixin, anon_sym_set, anon_sym_typedef, sym_const_builtin, anon_sym_late,
       anon_sym_external, sym_identifier])]),
     (91242, 25, [(ACTIONS 3, 1, [anon_sym_SLASH_SLASH]), (ACTIONS 5, 1,
       [anon_sym_SLASH_STAR]), (ACTIONS 7, 1, [anon_sym_SLASH_SLASH_SLASH]), (ACTIONS 9, 1,
       [sym__block_comment]), (ACTIONS 11, 1, [sym__documentation_block_comment]), (ACTIONS 33,
       1, [sym_void_type]), (ACTIONS 45, 1, [anon_sym_Function]), (ACTIONS 876, 1,
       [anon_sym_LBRACE]), (ACTIONS 880, 1, [anon_sym_LBRACK]), (ACTIONS 884, 1,
       [anon_sym_LPAREN]), (ACTIONS 3161, 1, [anon_sym_LT]), (ACTIONS 3829, 1, [sym_identifier]),
       (STATE 1463, 1, [sym__function_builtin_identifier]), (STATE 1605, 1,
       [aux_sym__function_type_tails]), (STATE 1704, 1, [sym__function_type_tail]), (STATE 1796,
       1, [sym__type_not_function]), (STATE 1805, 1, [sym_record_type]), (STATE 1848, 1,
       [sym_function_type]), (STATE 1896, 1, [sym__type_not_void_not_function]), (STATE 2421, 1,
       [sym__type_name]), (STATE 2965, 1, [sym__type]), (STATE 3171, 1, [sym_type_arguments]),
       (STATE 3413, 1, [sym__outer_pattern]), (STATE 1771, 2, [sym_comment,
       sym_documentation_comment]), (STATE 3182, 5, [sym__parenthesized_pattern,
       sym_list_pattern, sym_map_pattern, sym_record_pattern, sym_object_pattern])])]"

lemma small_run_642: "small_run 1769 91148 ts_small_parse_table_642 1772 91323"
  by (simp add: small_simps ts_small_parse_table_642_def)

definition ts_small_parse_table_643 :: "small_group list" where
  "ts_small_parse_table_643 = [
     (91323, 8, [(ACTIONS 3, 1, [anon_sym_SLASH_SLASH]), (ACTIONS 5, 1, [anon_sym_SLASH_STAR]),
       (ACTIONS 7, 1, [anon_sym_SLASH_SLASH_SLASH]), (ACTIONS 9, 1, [sym__block_comment]),
       (ACTIONS 11, 1, [sym__documentation_block_comment]), (STATE 1772, 2, [sym_comment,
       sym_documentation_comment]), (ACTIONS 3999, 3, [ts_builtin_sym_end, anon_sym_LPAREN,
       anon_sym_AT]), (ACTIONS 4001, 20, [anon_sym_enum, anon_sym_final, anon_sym_inline,
       anon_sym_class, anon_sym_extension, sym_void_type, anon_sym_var, anon_sym_Function,
       anon_sym_get, anon_sym_interface, anon_sym_base, anon_sym_abstract, anon_sym_sealed,
       anon_sym_mixin, anon_sym_set, anon_sym_typedef, sym_const_builtin, anon_sym_late,
       anon_sym_external, sym_identifier])]),
     (91370, 8, [(ACTIONS 3, 1, [anon_sym_SLASH_SLASH]), (ACTIONS 5, 1, [anon_sym_SLASH_STAR]),
       (ACTIONS 7, 1, [anon_sym_SLASH_SLASH_SLASH]), (ACTIONS 9, 1, [sym__block_comment]),
       (ACTIONS 11, 1, [sym__documentation_block_comment]), (STATE 1773, 2, [sym_comment,
       sym_documentation_comment]), (ACTIONS 4003, 3, [ts_builtin_sym_end, anon_sym_LPAREN,
       anon_sym_AT]), (ACTIONS 4005, 20, [anon_sym_enum, anon_sym_final, anon_sym_inline,
       anon_sym_class, anon_sym_extension, sym_void_type, anon_sym_var, anon_sym_Function,
       anon_sym_get, anon_sym_interface, anon_sym_base, anon_sym_abstract, anon_sym_sealed,
       anon_sym_mixin, anon_sym_set, anon_sym_typedef, sym_const_builtin, anon_sym_late,
       anon_sym_external, sym_identifier])]),
     (91417, 8, [(ACTIONS 3, 1, [anon_sym_SLASH_SLASH]), (ACTIONS 5, 1, [anon_sym_SLASH_STAR]),
       (ACTIONS 7, 1, [anon_sym_SLASH_SLASH_SLASH]), (ACTIONS 9, 1, [sym__block_comment]),
       (ACTIONS 11, 1, [sym__documentation_block_comment]), (STATE 1774, 2, [sym_comment,
       sym_documentation_comment]), (ACTIONS 4007, 3, [ts_builtin_sym_end, anon_sym_LPAREN,
       anon_sym_AT]), (ACTIONS 4009, 20, [anon_sym_enum, anon_sym_final, anon_sym_inline,
       anon_sym_class, anon_sym_extension, sym_void_type, anon_sym_var, anon_sym_Function,
       anon_sym_get, anon_sym_interface, anon_sym_base, anon_sym_abstract, anon_sym_sealed,
       anon_sym_mixin, anon_sym_set, anon_sym_typedef, sym_const_builtin, anon_sym_late,
       anon_sym_external, sym_identifier])])]"

lemma small_run_643: "small_run 1772 91323 ts_small_parse_table_643 1775 91464"
  by (simp add: small_simps ts_small_parse_table_643_def)

definition ts_small_parse_table_644 :: "small_group list" where
  "ts_small_parse_table_644 = [
     (91464, 8, [(ACTIONS 3, 1, [anon_sym_SLASH_SLASH]), (ACTIONS 5, 1, [anon_sym_SLASH_STAR]),
       (ACTIONS 7, 1, [anon_sym_SLASH_SLASH_SLASH]), (ACTIONS 9, 1, [sym__block_comment]),
       (ACTIONS 11, 1, [sym__documentation_block_comment]), (STATE 1775, 2, [sym_comment,
       sym_documentation_comment]), (ACTIONS 4011, 3, [ts_builtin_sym_end, anon_sym_LPAREN,
       anon_sym_AT]), (ACTIONS 4013, 20, [anon_sym_enum, anon_sym_final, anon_sym_inline,
       anon_sym_class, anon_sym_extension, sym_void_type, anon_sym_var, anon_sym_Function,
       anon_sym_get, anon_sym_interface, anon_sym_base, anon_sym_abstract, anon_sym_sealed,
       anon_sym_mixin, anon_sym_set, anon_sym_typedef, sym_const_builtin, anon_sym_late,
       anon_sym_external, sym_identifier])]),
     (91511, 8, [(ACTIONS 3, 1, [anon_sym_SLASH_SLASH]), (ACTIONS 5, 1, [anon_sym_SLASH_STAR]),
       (ACTIONS 7, 1, [anon_sym_SLASH_SLASH_SLASH]), (ACTIONS 9, 1, [sym__block_comment]),
       (ACTIONS 11, 1, [sym__documentation_block_comment]), (STATE 1776, 2, [sym_comment,
       sym_documentation_comment]), (ACTIONS 4015, 3, [ts_builtin_sym_end, anon_sym_LPAREN,
       anon_sym_AT]), (ACTIONS 4017, 20, [anon_sym_enum, anon_sym_final, anon_sym_inline,
       anon_sym_class, anon_sym_extension, sym_void_type, anon_sym_var, anon_sym_Function,
       anon_sym_get, anon_sym_interface, anon_sym_base, anon_sym_abstract, anon_sym_sealed,
       anon_sym_mixin, anon_sym_set, anon_sym_typedef, sym_const_builtin, anon_sym_late,
       anon_sym_external, sym_identifier])]),
     (91558, 8, [(ACTIONS 3, 1, [anon_sym_SLASH_SLASH]), (ACTIONS 5, 1, [anon_sym_SLASH_STAR]),
       (ACTIONS 7, 1, [anon_sym_SLASH_SLASH_SLASH]), (ACTIONS 9, 1, [sym__block_comment]),
       (ACTIONS 11, 1, [sym__documentation_block_comment]), (STATE 1777, 2, [sym_comment,
       sym_documentation_comment]), (ACTIONS 4019, 3, [ts_builtin_sym_end, anon_sym_LPAREN,
       anon_sym_AT]), (ACTIONS 4021, 20, [anon_sym_enum, anon_sym_final, anon_sym_inline,
       anon_sym_class, anon_sym_extension, sym_void_type, anon_sym_var, anon_sym_Function,
       anon_sym_get, anon_sym_interface, anon_sym_base, anon_sym_abstract, anon_sym_sealed,
       anon_sym_mixin, anon_sym_set, anon_sym_typedef, sym_const_builtin, anon_sym_late,
       anon_sym_external, sym_identifier])])]"

lemma small_run_644: "small_run 1775 91464 ts_small_parse_table_644 1778 91605"
  by (simp add: small_simps ts_small_parse_table_644_def)

definition ts_small_parse_table_645 :: "small_group list" where
  "ts_small_parse_table_645 = [
     (91605, 8, [(ACTIONS 3, 1, [anon_sym_SLASH_SLASH]), (ACTIONS 5, 1, [anon_sym_SLASH_STAR]),
       (ACTIONS 7, 1, [anon_sym_SLASH_SLASH_SLASH]), (ACTIONS 9, 1, [sym__block_comment]),
       (ACTIONS 11, 1, [sym__documentation_block_comment]), (STATE 1778, 2, [sym_comment,
       sym_documentation_comment]), (ACTIONS 4023, 3, [ts_builtin_sym_end, anon_sym_LPAREN,
       anon_sym_AT]), (ACTIONS 4025, 20, [anon_sym_enum, anon_sym_final, anon_sym_inline,
       anon_sym_class, anon_sym_extension, sym_void_type, anon_sym_var, anon_sym_Function,
       anon_sym_get, anon_sym_interface, anon_sym_base, anon_sym_abstract, anon_sym_sealed,
       anon_sym_mixin, anon_sym_set, anon_sym_typedef, sym_const_builtin, anon_sym_late,
       anon_sym_external, sym_identifier])]),
     (91652, 8, [(ACTIONS 3, 1, [anon_sym_SLASH_SLASH]), (ACTIONS 5, 1, [anon_sym_SLASH_STAR]),
       (ACTIONS 7, 1, [anon_sym_SLASH_SLASH_SLASH]), (ACTIONS 9, 1, [sym__block_comment]),
       (ACTIONS 11, 1, [sym__documentation_block_comment]), (STATE 1779, 2, [sym_comment,
       sym_documentation_comment]), (ACTIONS 4027, 3, [ts_builtin_sym_end, anon_sym_LPAREN,
       anon_sym_AT]), (ACTIONS 4029, 20, [anon_sym_enum, anon_sym_final, anon_sym_inline,
       anon_sym_class, anon_sym_extension, sym_void_type, anon_sym_var, anon_sym_Function,
       anon_sym_get, anon_sym_interface, anon_sym_base, anon_sym_abstract, anon_sym_sealed,
       anon_sym_mixin, anon_sym_set, anon_sym_typedef, sym_const_builtin, anon_sym_late,
       anon_sym_external, sym_identifier])]),
     (91699, 8, [(ACTIONS 3, 1, [anon_sym_SLASH_SLASH]), (ACTIONS 5, 1, [anon_sym_SLASH_STAR]),
       (ACTIONS 7, 1, [anon_sym_SLASH_SLASH_SLASH]), (ACTIONS 9, 1, [sym__block_comment]),
       (ACTIONS 11, 1, [sym__documentation_block_comment]), (STATE 1780, 2, [sym_comment,
       sym_documentation_comment]), (ACTIONS 4031, 3, [ts_builtin_sym_end, anon_sym_LPAREN,
       anon_sym_AT]), (ACTIONS 4033, 20, [anon_sym_enum, anon_sym_final, anon_sym_inline,
       anon_sym_class, anon_sym_extension, sym_void_type, anon_sym_var, anon_sym_Function,
       anon_sym_get, anon_sym_interface, anon_sym_base, anon_sym_abstract, anon_sym_sealed,
       anon_sym_mixin, anon_sym_set, anon_sym_typedef, sym_const_builtin, anon_sym_late,
       anon_sym_external, sym_identifier])])]"

lemma small_run_645: "small_run 1778 91605 ts_small_parse_table_645 1781 91746"
  by (simp add: small_simps ts_small_parse_table_645_def)

definition ts_small_parse_table_646 :: "small_group list" where
  "ts_small_parse_table_646 = [
     (91746, 8, [(ACTIONS 3, 1, [anon_sym_SLASH_SLASH]), (ACTIONS 5, 1, [anon_sym_SLASH_STAR]),
       (ACTIONS 7, 1, [anon_sym_SLASH_SLASH_SLASH]), (ACTIONS 9, 1, [sym__block_comment]),
       (ACTIONS 11, 1, [sym__documentation_block_comment]), (STATE 1781, 2, [sym_comment,
       sym_documentation_comment]), (ACTIONS 4035, 3, [ts_builtin_sym_end, anon_sym_LPAREN,
       anon_sym_AT]), (ACTIONS 4037, 20, [anon_sym_enum, anon_sym_final, anon_sym_inline,
       anon_sym_class, anon_sym_extension, sym_void_type, anon_sym_var, anon_sym_Function,
       anon_sym_get, anon_sym_interface, anon_sym_base, anon_sym_abstract, anon_sym_sealed,
       anon_sym_mixin, anon_sym_set, anon_sym_typedef, sym_const_builtin, anon_sym_late,
       anon_sym_external, sym_identifier])]),
     (91793, 8, [(ACTIONS 3, 1, [anon_sym_SLASH_SLASH]), (ACTIONS 5, 1, [anon_sym_SLASH_STAR]),
       (ACTIONS 7, 1, [anon_sym_SLASH_SLASH_SLASH]), (ACTIONS 9, 1, [sym__block_comment]),
       (ACTIONS 11, 1, [sym__documentation_block_comment]), (STATE 1782, 2, [sym_comment,
       sym_documentation_comment]), (ACTIONS 4039, 3, [ts_builtin_sym_end, anon_sym_LPAREN,
       anon_sym_AT]), (ACTIONS 4041, 20, [anon_sym_enum, anon_sym_final, anon_sym_inline,
       anon_sym_class, anon_sym_extension, sym_void_type, anon_sym_var, anon_sym_Function,
       anon_sym_get, anon_sym_interface, anon_sym_base, anon_sym_abstract, anon_sym_sealed,
       anon_sym_mixin, anon_sym_set, anon_sym_typedef, sym_const_builtin, anon_sym_late,
       anon_sym_external, sym_identifier])]),
     (91840, 8, [(ACTIONS 3, 1, [anon_sym_SLASH_SLASH]), (ACTIONS 5, 1, [anon_sym_SLASH_STAR]),
       (ACTIONS 7, 1, [anon_sym_SLASH_SLASH_SLASH]), (ACTIONS 9, 1, [sym__block_comment]),
       (ACTIONS 11, 1, [sym__documentation_block_comment]), (STATE 1783, 2, [sym_comment,
       sym_documentation_comment]), (ACTIONS 4043, 3, [ts_builtin_sym_end, anon_sym_LPAREN,
       anon_sym_AT]), (ACTIONS 4045, 20, [anon_sym_enum, anon_sym_final, anon_sym_inline,
       anon_sym_class, anon_sym_extension, sym_void_type, anon_sym_var, anon_sym_Function,
       anon_sym_get, anon_sym_interface, anon_sym_base, anon_sym_abstract, anon_sym_sealed,
       anon_sym_mixin, anon_sym_set, anon_sym_typedef, sym_const_builtin, anon_sym_late,
       anon_sym_external, sym_identifier])])]"

lemma small_run_646: "small_run 1781 91746 ts_small_parse_table_646 1784 91887"
  by (simp add: small_simps ts_small_parse_table_646_def)

definition ts_small_parse_table_647 :: "small_group list" where
  "ts_small_parse_table_647 = [
     (91887, 8, [(ACTIONS 3, 1, [anon_sym_SLASH_SLASH]), (ACTIONS 5, 1, [anon_sym_SLASH_STAR]),
       (ACTIONS 7, 1, [anon_sym_SLASH_SLASH_SLASH]), (ACTIONS 9, 1, [sym__block_comment]),
       (ACTIONS 11, 1, [sym__documentation_block_comment]), (STATE 1784, 2, [sym_comment,
       sym_documentation_comment]), (ACTIONS 4047, 3, [ts_builtin_sym_end, anon_sym_LPAREN,
       anon_sym_AT]), (ACTIONS 4049, 20, [anon_sym_enum, anon_sym_final, anon_sym_inline,
       anon_sym_class, anon_sym_extension, sym_void_type, anon_sym_var, anon_sym_Function,
       anon_sym_get, anon_sym_interface, anon_sym_base, anon_sym_abstract, anon_sym_sealed,
       anon_sym_mixin, anon_sym_set, anon_sym_typedef, sym_const_builtin, anon_sym_late,
       anon_sym_external, sym_identifier])]),
     (91934, 8, [(ACTIONS 3, 1, [anon_sym_SLASH_SLASH]), (ACTIONS 5, 1, [anon_sym_SLASH_STAR]),
       (ACTIONS 7, 1, [anon_sym_SLASH_SLASH_SLASH]), (ACTIONS 9, 1, [sym__block_comment]),
       (ACTIONS 11, 1, [sym__documentation_block_comment]), (STATE 1785, 2, [sym_comment,
       sym_documentation_comment]), (ACTIONS 4051, 3, [ts_builtin_sym_end, anon_sym_LPAREN,
       anon_sym_AT]), (ACTIONS 4053, 20, [anon_sym_enum, anon_sym_final, anon_sym_inline,
       anon_sym_class, anon_sym_extension, sym_void_type, anon_sym_var, anon_sym_Function,
       anon_sym_get, anon_sym_interface, anon_sym_base, anon_sym_abstract, anon_sym_sealed,
       anon_sym_mixin, anon_sym_set, anon_sym_typedef, sym_const_builtin, anon_sym_late,
       anon_sym_external, sym_identifier])]),
     (91981, 8, [(ACTIONS 3, 1, [anon_sym_SLASH_SLASH]), (ACTIONS 5, 1, [anon_sym_SLASH_STAR]),
       (ACTIONS 7, 1, [anon_sym_SLASH_SLASH_SLASH]), (ACTIONS 9, 1, [sym__block_comment]),
       (ACTIONS 11, 1, [sym__documentation_block_comment]), (STATE 1786, 2, [sym_comment,
       sym_documentation_comment]), (ACTIONS 4055, 3, [ts_builtin_sym_end, anon_sym_LPAREN,
       anon_sym_AT]), (ACTIONS 4057, 20, [anon_sym_enum, anon_sym_final, anon_sym_inline,
       anon_sym_class, anon_sym_extension, sym_void_type, anon_sym_var, anon_sym_Function,
       anon_sym_get, anon_sym_interface, anon_sym_base, anon_sym_abstract, anon_sym_sealed,
       anon_sym_mixin, anon_sym_set, anon_sym_typedef, sym_const_builtin, anon_sym_late,
       anon_sym_external, sym_identifier])])]"

lemma small_run_647: "small_run 1784 91887 ts_small_parse_table_647 1787 92028"
  by (simp add: small_simps ts_small_parse_table_647_def)

definition ts_small_parse_table_648 :: "small_group list" where
  "ts_small_parse_table_648 = [
     (92028, 8, [(ACTIONS 3, 1, [anon_sym_SLASH_SLASH]), (ACTIONS 5, 1, [anon_sym_SLASH_STAR]),
       (ACTIONS 7, 1, [anon_sym_SLASH_SLASH_SLASH]), (ACTIONS 9, 1, [sym__block_comment]),
       (ACTIONS 11, 1, [sym__documentation_block_comment]), (STATE 1787, 2, [sym_comment,
       sym_documentation_comment]), (ACTIONS 4059, 3, [ts_builtin_sym_end, anon_sym_LPAREN,
       anon_sym_AT]), (ACTIONS 4061, 20, [anon_sym_enum, anon_sym_final, anon_sym_inline,
       anon_sym_class, anon_sym_extension, sym_void_type, anon_sym_var, anon_sym_Function,
       anon_sym_get, anon_sym_interface, anon_sym_base, anon_sym_abstract, anon_sym_sealed,
       anon_sym_mixin, anon_sym_set, anon_sym_typedef, sym_const_builtin, anon_sym_late,
       anon_sym_external, sym_identifier])]),
     (92075, 8, [(ACTIONS 3, 1, [anon_sym_SLASH_SLASH]), (ACTIONS 5, 1, [anon_sym_SLASH_STAR]),
       (ACTIONS 7, 1, [anon_sym_SLASH_SLASH_SLASH]), (ACTIONS 9, 1, [sym__block_comment]),
       (ACTIONS 11, 1, [sym__documentation_block_comment]), (STATE 1788, 2, [sym_comment,
       sym_documentation_comment]), (ACTIONS 4063, 3, [ts_builtin_sym_end, anon_sym_LPAREN,
       anon_sym_AT]), (ACTIONS 4065, 20, [anon_sym_enum, anon_sym_final, anon_sym_inline,
       anon_sym_class, anon_sym_extension, sym_void_type, anon_sym_var, anon_sym_Function,
       anon_sym_get, anon_sym_interface, anon_sym_base, anon_sym_abstract, anon_sym_sealed,
       anon_sym_mixin, anon_sym_set, anon_sym_typedef, sym_const_builtin, anon_sym_late,
       anon_sym_external, sym_identifier])]),
     (92122, 8, [(ACTIONS 3, 1, [anon_sym_SLASH_SLASH]), (ACTIONS 5, 1, [anon_sym_SLASH_STAR]),
       (ACTIONS 7, 1, [anon_sym_SLASH_SLASH_SLASH]), (ACTIONS 9, 1, [sym__block_comment]),
       (ACTIONS 11, 1, [sym__documentation_block_comment]), (STATE 1789, 2, [sym_comment,
       sym_documentation_comment]), (ACTIONS 4067, 3, [ts_builtin_sym_end, anon_sym_LPAREN,
       anon_sym_AT]), (ACTIONS 4069, 20, [anon_sym_enum, anon_sym_final, anon_sym_inline,
       anon_sym_class, anon_sym_extension, sym_void_type, anon_sym_var, anon_sym_Function,
       anon_sym_get, anon_sym_interface, anon_sym_base, anon_sym_abstract, anon_sym_sealed,
       anon_sym_mixin, anon_sym_set, anon_sym_typedef, sym_const_builtin, anon_sym_late,
       anon_sym_external, sym_identifier])])]"

lemma small_run_648: "small_run 1787 92028 ts_small_parse_table_648 1790 92169"
  by (simp add: small_simps ts_small_parse_table_648_def)

definition ts_small_parse_table_part_6 :: "small_group list" where
  "ts_small_parse_table_part_6 =
     ts_small_parse_table_552 @ ts_small_parse_table_553 @ ts_small_parse_table_554 @
     ts_small_parse_table_555 @ ts_small_parse_table_556 @ ts_small_parse_table_557 @
     ts_small_parse_table_558 @ ts_small_parse_table_559 @ ts_small_parse_table_560 @
     ts_small_parse_table_561 @ ts_small_parse_table_562 @ ts_small_parse_table_563 @
     ts_small_parse_table_564 @ ts_small_parse_table_565 @ ts_small_parse_table_566 @
     ts_small_parse_table_567 @ ts_small_parse_table_568 @ ts_small_parse_table_569 @
     ts_small_parse_table_570 @ ts_small_parse_table_571 @ ts_small_parse_table_572 @
     ts_small_parse_table_573 @ ts_small_parse_table_574 @ ts_small_parse_table_575 @
     ts_small_parse_table_576 @ ts_small_parse_table_577 @ ts_small_parse_table_578 @
     ts_small_parse_table_579 @ ts_small_parse_table_580 @ ts_small_parse_table_581 @
     ts_small_parse_table_582 @ ts_small_parse_table_583 @ ts_small_parse_table_584 @
     ts_small_parse_table_585 @ ts_small_parse_table_586 @ ts_small_parse_table_587 @
     ts_small_parse_table_588 @ ts_small_parse_table_589 @ ts_small_parse_table_590 @
     ts_small_parse_table_591 @ ts_small_parse_table_592 @ ts_small_parse_table_593 @
     ts_small_parse_table_594 @ ts_small_parse_table_595 @ ts_small_parse_table_596 @
     ts_small_parse_table_597 @ ts_small_parse_table_598 @ ts_small_parse_table_599 @
     ts_small_parse_table_600 @ ts_small_parse_table_601 @ ts_small_parse_table_602 @
     ts_small_parse_table_603 @ ts_small_parse_table_604 @ ts_small_parse_table_605 @
     ts_small_parse_table_606 @ ts_small_parse_table_607 @ ts_small_parse_table_608 @
     ts_small_parse_table_609 @ ts_small_parse_table_610 @ ts_small_parse_table_611 @
     ts_small_parse_table_612 @ ts_small_parse_table_613 @ ts_small_parse_table_614 @
     ts_small_parse_table_615 @ ts_small_parse_table_616 @ ts_small_parse_table_617 @
     ts_small_parse_table_618 @ ts_small_parse_table_619 @ ts_small_parse_table_620 @
     ts_small_parse_table_621 @ ts_small_parse_table_622 @ ts_small_parse_table_623 @
     ts_small_parse_table_624 @ ts_small_parse_table_625 @ ts_small_parse_table_626 @
     ts_small_parse_table_627 @ ts_small_parse_table_628 @ ts_small_parse_table_629 @
     ts_small_parse_table_630 @ ts_small_parse_table_631 @ ts_small_parse_table_632 @
     ts_small_parse_table_633 @ ts_small_parse_table_634 @ ts_small_parse_table_635 @
     ts_small_parse_table_636 @ ts_small_parse_table_637 @ ts_small_parse_table_638 @
     ts_small_parse_table_639 @ ts_small_parse_table_640 @ ts_small_parse_table_641 @
     ts_small_parse_table_642 @ ts_small_parse_table_643 @ ts_small_parse_table_644 @
     ts_small_parse_table_645 @ ts_small_parse_table_646 @ ts_small_parse_table_647 @
     ts_small_parse_table_648"

lemma small_part_6: "small_run 1508 76659 ts_small_parse_table_part_6 1790 92169"
  unfolding ts_small_parse_table_part_6_def
  by (rule small_run_append [OF small_run_552], rule small_run_append [OF small_run_553],
    rule small_run_append [OF small_run_554], rule small_run_append [OF small_run_555],
    rule small_run_append [OF small_run_556], rule small_run_append [OF small_run_557],
    rule small_run_append [OF small_run_558], rule small_run_append [OF small_run_559],
    rule small_run_append [OF small_run_560], rule small_run_append [OF small_run_561],
    rule small_run_append [OF small_run_562], rule small_run_append [OF small_run_563],
    rule small_run_append [OF small_run_564], rule small_run_append [OF small_run_565],
    rule small_run_append [OF small_run_566], rule small_run_append [OF small_run_567],
    rule small_run_append [OF small_run_568], rule small_run_append [OF small_run_569],
    rule small_run_append [OF small_run_570], rule small_run_append [OF small_run_571],
    rule small_run_append [OF small_run_572], rule small_run_append [OF small_run_573],
    rule small_run_append [OF small_run_574], rule small_run_append [OF small_run_575],
    rule small_run_append [OF small_run_576], rule small_run_append [OF small_run_577],
    rule small_run_append [OF small_run_578], rule small_run_append [OF small_run_579],
    rule small_run_append [OF small_run_580], rule small_run_append [OF small_run_581],
    rule small_run_append [OF small_run_582], rule small_run_append [OF small_run_583],
    rule small_run_append [OF small_run_584], rule small_run_append [OF small_run_585],
    rule small_run_append [OF small_run_586], rule small_run_append [OF small_run_587],
    rule small_run_append [OF small_run_588], rule small_run_append [OF small_run_589],
    rule small_run_append [OF small_run_590], rule small_run_append [OF small_run_591],
    rule small_run_append [OF small_run_592], rule small_run_append [OF small_run_593],
    rule small_run_append [OF small_run_594], rule small_run_append [OF small_run_595],
    rule small_run_append [OF small_run_596], rule small_run_append [OF small_run_597],
    rule small_run_append [OF small_run_598], rule small_run_append [OF small_run_599],
    rule small_run_append [OF small_run_600], rule small_run_append [OF small_run_601],
    rule small_run_append [OF small_run_602], rule small_run_append [OF small_run_603],
    rule small_run_append [OF small_run_604], rule small_run_append [OF small_run_605],
    rule small_run_append [OF small_run_606], rule small_run_append [OF small_run_607],
    rule small_run_append [OF small_run_608], rule small_run_append [OF small_run_609],
    rule small_run_append [OF small_run_610], rule small_run_append [OF small_run_611],
    rule small_run_append [OF small_run_612], rule small_run_append [OF small_run_613],
    rule small_run_append [OF small_run_614], rule small_run_append [OF small_run_615],
    rule small_run_append [OF small_run_616], rule small_run_append [OF small_run_617],
    rule small_run_append [OF small_run_618], rule small_run_append [OF small_run_619],
    rule small_run_append [OF small_run_620], rule small_run_append [OF small_run_621],
    rule small_run_append [OF small_run_622], rule small_run_append [OF small_run_623],
    rule small_run_append [OF small_run_624], rule small_run_append [OF small_run_625],
    rule small_run_append [OF small_run_626], rule small_run_append [OF small_run_627],
    rule small_run_append [OF small_run_628], rule small_run_append [OF small_run_629],
    rule small_run_append [OF small_run_630], rule small_run_append [OF small_run_631],
    rule small_run_append [OF small_run_632], rule small_run_append [OF small_run_633],
    rule small_run_append [OF small_run_634], rule small_run_append [OF small_run_635],
    rule small_run_append [OF small_run_636], rule small_run_append [OF small_run_637],
    rule small_run_append [OF small_run_638], rule small_run_append [OF small_run_639],
    rule small_run_append [OF small_run_640], rule small_run_append [OF small_run_641],
    rule small_run_append [OF small_run_642], rule small_run_append [OF small_run_643],
    rule small_run_append [OF small_run_644], rule small_run_append [OF small_run_645],
    rule small_run_append [OF small_run_646], rule small_run_append [OF small_run_647],
    rule small_run_648)

end
