(* ===== verification/Dart_Small_7.thy ===== *)
theory Dart_Small_7
  imports Dart_Items
begin

text \<open>
  The groups of \<^verbatim>\<open>ts_small_parse_table\<close> for the states 1790 to 2037, in blocks of at most 150 lines of
  the source, each with the check of its layout and of its entries.
\<close>

definition ts_small_parse_table_649 :: "small_group list" where
  "ts_small_parse_table_649 = [
     (92169, 8, [(ACTIONS 3, 1, [anon_sym_SLASH_SLASH]), (ACTIONS 5, 1, [anon_sym_SLASH_STAR]),
       (ACTIONS 7, 1, [anon_sym_SLASH_SLASH_SLASH]), (ACTIONS 9, 1, [sym__block_comment]),
       (ACTIONS 11, 1, [sym__documentation_block_comment]), (STATE 1790, 2, [sym_comment,
       sym_documentation_comment]), (ACTIONS 4071, 3, [ts_builtin_sym_end, anon_sym_LPAREN,
       anon_sym_AT]), (ACTIONS 4073, 20, [anon_sym_enum, anon_sym_final, anon_sym_inline,
       anon_sym_class, anon_sym_extension, sym_void_type, anon_sym_var, anon_sym_Function,
       anon_sym_get, anon_sym_interface, anon_sym_base, anon_sym_abstract, anon_sym_sealed,
       anon_sym_mixin, anon_sym_set, anon_sym_typedef, sym_const_builtin, anon_sym_late,
       anon_sym_external, sym_identifier])]),
     (92216, 8, [(ACTIONS 3, 1, [anon_sym_SLASH_SLASH]), (ACTIONS 5, 1, [anon_sym_SLASH_STAR]),
       (ACTIONS 7, 1, [anon_sym_SLASH_SLASH_SLASH]), (ACTIONS 9, 1, [sym__block_comment]),
       (ACTIONS 11, 1, [sym__documentation_block_comment]), (STATE 1791, 2, [sym_comment,
       sym_documentation_comment]), (ACTIONS 4075, 3, [ts_builtin_sym_end, anon_sym_LPAREN,
       anon_sym_AT]), (ACTIONS 4077, 20, [anon_sym_enum, anon_sym_final, anon_sym_inline,
       anon_sym_class, anon_sym_extension, sym_void_type, anon_sym_var, anon_sym_Function,
       anon_sym_get, anon_sym_interface, anon_sym_base, anon_sym_abstract, anon_sym_sealed,
       anon_sym_mixin, anon_sym_set, anon_sym_typedef, sym_const_builtin, anon_sym_late,
       anon_sym_external, sym_identifier])]),
     (92263, 8, [(ACTIONS 3, 1, [anon_sym_SLASH_SLASH]), (ACTIONS 5, 1, [anon_sym_SLASH_STAR]),
       (ACTIONS 7, 1, [anon_sym_SLASH_SLASH_SLASH]), (ACTIONS 9, 1, [sym__block_comment]),
       (ACTIONS 11, 1, [sym__documentation_block_comment]), (STATE 1792, 2, [sym_comment,
       sym_documentation_comment]), (ACTIONS 4079, 3, [ts_builtin_sym_end, anon_sym_LPAREN,
       anon_sym_AT]), (ACTIONS 4081, 20, [anon_sym_enum, anon_sym_final, anon_sym_inline,
       anon_sym_class, anon_sym_extension, sym_void_type, anon_sym_var, anon_sym_Function,
       anon_sym_get, anon_sym_interface, anon_sym_base, anon_sym_abstract, anon_sym_sealed,
       anon_sym_mixin, anon_sym_set, anon_sym_typedef, sym_const_builtin, anon_sym_late,
       anon_sym_external, sym_identifier])])]"

lemma small_run_649: "small_run 1790 92169 ts_small_parse_table_649 1793 92310"
  by (simp add: small_simps ts_small_parse_table_649_def)

definition ts_small_parse_table_650 :: "small_group list" where
  "ts_small_parse_table_650 = [
     (92310, 8, [(ACTIONS 3, 1, [anon_sym_SLASH_SLASH]), (ACTIONS 5, 1, [anon_sym_SLASH_STAR]),
       (ACTIONS 7, 1, [anon_sym_SLASH_SLASH_SLASH]), (ACTIONS 9, 1, [sym__block_comment]),
       (ACTIONS 11, 1, [sym__documentation_block_comment]), (STATE 1793, 2, [sym_comment,
       sym_documentation_comment]), (ACTIONS 4083, 3, [ts_builtin_sym_end, anon_sym_LPAREN,
       anon_sym_AT]), (ACTIONS 4085, 20, [anon_sym_enum, anon_sym_final, anon_sym_inline,
       anon_sym_class, anon_sym_extension, sym_void_type, anon_sym_var, anon_sym_Function,
       anon_sym_get, anon_sym_interface, anon_sym_base, anon_sym_abstract, anon_sym_sealed,
       anon_sym_mixin, anon_sym_set, anon_sym_typedef, sym_const_builtin, anon_sym_late,
       anon_sym_external, sym_identifier])]),
     (92357, 28, [(ACTIONS 3, 1, [anon_sym_SLASH_SLASH]), (ACTIONS 5, 1,
       [anon_sym_SLASH_STAR]), (ACTIONS 7, 1, [anon_sym_SLASH_SLASH_SLASH]), (ACTIONS 9, 1,
       [sym__block_comment]), (ACTIONS 11, 1, [sym__documentation_block_comment]), (ACTIONS 17,
       1, [anon_sym_LPAREN]), (ACTIONS 33, 1, [sym_void_type]), (ACTIONS 35, 1, [anon_sym_var]),
       (ACTIONS 45, 1, [anon_sym_Function]), (ACTIONS 67, 1, [anon_sym_late]), (ACTIONS 145, 1,
       [anon_sym_final]), (ACTIONS 2268, 1, [sym_const_builtin]), (ACTIONS 4087, 1,
       [sym_identifier]), (STATE 1463, 1, [sym__function_builtin_identifier]), (STATE 1530, 1,
       [sym__type_name]), (STATE 1605, 1, [aux_sym__function_type_tails]), (STATE 1704, 1,
       [sym__function_type_tail]), (STATE 1796, 1, [sym__type_not_function]), (STATE 1805, 1,
       [sym_record_type]), (STATE 1848, 1, [sym_function_type]), (STATE 1896, 1,
       [sym__type_not_void_not_function]), (STATE 1915, 1, [sym__late_builtin]), (STATE 1976, 1,
       [sym_inferred_type]), (STATE 1984, 1, [sym_final_builtin]), (STATE 2755, 1,
       [sym__var_or_type]), (STATE 3535, 1, [sym__type]), (STATE 3536, 1,
       [sym__final_const_var_or_type]), (STATE 1794, 2, [sym_comment,
       sym_documentation_comment])])]"

lemma small_run_650: "small_run 1793 92310 ts_small_parse_table_650 1795 92443"
  by (simp add: small_simps ts_small_parse_table_650_def)

definition ts_small_parse_table_651 :: "small_group list" where
  "ts_small_parse_table_651 = [
     (92443, 28, [(ACTIONS 3, 1, [anon_sym_SLASH_SLASH]), (ACTIONS 5, 1,
       [anon_sym_SLASH_STAR]), (ACTIONS 7, 1, [anon_sym_SLASH_SLASH_SLASH]), (ACTIONS 9, 1,
       [sym__block_comment]), (ACTIONS 11, 1, [sym__documentation_block_comment]), (ACTIONS 17,
       1, [anon_sym_LPAREN]), (ACTIONS 33, 1, [sym_void_type]), (ACTIONS 35, 1, [anon_sym_var]),
       (ACTIONS 45, 1, [anon_sym_Function]), (ACTIONS 67, 1, [anon_sym_late]), (ACTIONS 145, 1,
       [anon_sym_final]), (ACTIONS 2268, 1, [sym_const_builtin]), (ACTIONS 3408, 1,
       [sym_identifier]), (STATE 1463, 1, [sym__function_builtin_identifier]), (STATE 1530, 1,
       [sym__type_name]), (STATE 1605, 1, [aux_sym__function_type_tails]), (STATE 1704, 1,
       [sym__function_type_tail]), (STATE 1796, 1, [sym__type_not_function]), (STATE 1805, 1,
       [sym_record_type]), (STATE 1848, 1, [sym_function_type]), (STATE 1896, 1,
       [sym__type_not_void_not_function]), (STATE 1915, 1, [sym__late_builtin]), (STATE 1976, 1,
       [sym_inferred_type]), (STATE 1984, 1, [sym_final_builtin]), (STATE 2755, 1,
       [sym__var_or_type]), (STATE 2943, 1, [sym__type]), (STATE 3536, 1,
       [sym__final_const_var_or_type]), (STATE 1795, 2, [sym_comment,
       sym_documentation_comment])]),
     (92529, 12, [(ACTIONS 3, 1, [anon_sym_SLASH_SLASH]), (ACTIONS 5, 1,
       [anon_sym_SLASH_STAR]), (ACTIONS 7, 1, [anon_sym_SLASH_SLASH_SLASH]), (ACTIONS 9, 1,
       [sym__block_comment]), (ACTIONS 11, 1, [sym__documentation_block_comment]), (ACTIONS 45,
       1, [anon_sym_Function]), (STATE 1498, 1, [sym__function_builtin_identifier]), (STATE 1586,
       1, [aux_sym__function_type_tails]), (STATE 1704, 1, [sym__function_type_tail]), (STATE
       1796, 2, [sym_comment, sym_documentation_comment]), (ACTIONS 4089, 7, [anon_sym_when,
       anon_sym_get, anon_sym_operator, anon_sym_set, anon_sym_this, anon_sym_super,
       sym_identifier]), (ACTIONS 4091, 11, [anon_sym_LBRACE, anon_sym_RBRACE, anon_sym_COMMA,
       anon_sym_RBRACK, anon_sym_COLON, anon_sym_RPAREN, anon_sym_GT, anon_sym_SEMI,
       anon_sym_EQ_GT, anon_sym_AMP_AMP, anon_sym_PIPE_PIPE])])]"

lemma small_run_651: "small_run 1795 92443 ts_small_parse_table_651 1797 92583"
  by (simp add: small_simps ts_small_parse_table_651_def)

definition ts_small_parse_table_652 :: "small_group list" where
  "ts_small_parse_table_652 = [
     (92583, 25, [(ACTIONS 3, 1, [anon_sym_SLASH_SLASH]), (ACTIONS 5, 1,
       [anon_sym_SLASH_STAR]), (ACTIONS 7, 1, [anon_sym_SLASH_SLASH_SLASH]), (ACTIONS 9, 1,
       [sym__block_comment]), (ACTIONS 11, 1, [sym__documentation_block_comment]), (ACTIONS 4093,
       1, [sym_identifier]), (ACTIONS 4096, 1, [anon_sym_LPAREN]), (ACTIONS 4099, 1,
       [sym_void_type]), (ACTIONS 4104, 1, [anon_sym_Function]), (ACTIONS 4107, 1,
       [anon_sym_get]), (ACTIONS 4110, 1, [anon_sym_static]), (STATE 1463, 1,
       [sym__function_builtin_identifier]), (STATE 1530, 1, [sym__type_name]), (STATE 1605, 1,
       [aux_sym__function_type_tails]), (STATE 1704, 1, [sym__function_type_tail]), (STATE 1796,
       1, [sym__type_not_function]), (STATE 1805, 1, [sym_record_type]), (STATE 1848, 1,
       [sym_function_type]), (STATE 1896, 1, [sym__type_not_void_not_function]), (STATE 1969, 1,
       [sym__static]), (STATE 3221, 1, [sym__type]), (STATE 3314, 1, [sym_getter_signature]),
       (STATE 3369, 1, [sym__get]), (STATE 1797, 2, [sym_comment, sym_documentation_comment]),
       (ACTIONS 4102, 4, [anon_sym_factory, anon_sym_operator, anon_sym_set,
       sym_const_builtin])]),
     (92663, 28, [(ACTIONS 3, 1, [anon_sym_SLASH_SLASH]), (ACTIONS 5, 1,
       [anon_sym_SLASH_STAR]), (ACTIONS 7, 1, [anon_sym_SLASH_SLASH_SLASH]), (ACTIONS 9, 1,
       [sym__block_comment]), (ACTIONS 11, 1, [sym__documentation_block_comment]), (ACTIONS 17,
       1, [anon_sym_LPAREN]), (ACTIONS 33, 1, [sym_void_type]), (ACTIONS 35, 1, [anon_sym_var]),
       (ACTIONS 45, 1, [anon_sym_Function]), (ACTIONS 67, 1, [anon_sym_late]), (ACTIONS 145, 1,
       [anon_sym_final]), (ACTIONS 2268, 1, [sym_const_builtin]), (ACTIONS 4087, 1,
       [sym_identifier]), (STATE 1463, 1, [sym__function_builtin_identifier]), (STATE 1530, 1,
       [sym__type_name]), (STATE 1605, 1, [aux_sym__function_type_tails]), (STATE 1704, 1,
       [sym__function_type_tail]), (STATE 1796, 1, [sym__type_not_function]), (STATE 1805, 1,
       [sym_record_type]), (STATE 1848, 1, [sym_function_type]), (STATE 1896, 1,
       [sym__type_not_void_not_function]), (STATE 1915, 1, [sym__late_builtin]), (STATE 1976, 1,
       [sym_inferred_type]), (STATE 1984, 1, [sym_final_builtin]), (STATE 2755, 1,
       [sym__var_or_type]), (STATE 3300, 1, [sym__final_const_var_or_type]), (STATE 3535, 1,
       [sym__type]), (STATE 1798, 2, [sym_comment, sym_documentation_comment])])]"

lemma small_run_652: "small_run 1797 92583 ts_small_parse_table_652 1799 92749"
  by (simp add: small_simps ts_small_parse_table_652_def)

definition ts_small_parse_table_653 :: "small_group list" where
  "ts_small_parse_table_653 = [
     (92749, 28, [(ACTIONS 3, 1, [anon_sym_SLASH_SLASH]), (ACTIONS 5, 1,
       [anon_sym_SLASH_STAR]), (ACTIONS 7, 1, [anon_sym_SLASH_SLASH_SLASH]), (ACTIONS 9, 1,
       [sym__block_comment]), (ACTIONS 11, 1, [sym__documentation_block_comment]), (ACTIONS 17,
       1, [anon_sym_LPAREN]), (ACTIONS 33, 1, [sym_void_type]), (ACTIONS 35, 1, [anon_sym_var]),
       (ACTIONS 45, 1, [anon_sym_Function]), (ACTIONS 67, 1, [anon_sym_late]), (ACTIONS 145, 1,
       [anon_sym_final]), (ACTIONS 2268, 1, [sym_const_builtin]), (ACTIONS 3408, 1,
       [sym_identifier]), (STATE 1463, 1, [sym__function_builtin_identifier]), (STATE 1530, 1,
       [sym__type_name]), (STATE 1605, 1, [aux_sym__function_type_tails]), (STATE 1704, 1,
       [sym__function_type_tail]), (STATE 1796, 1, [sym__type_not_function]), (STATE 1805, 1,
       [sym_record_type]), (STATE 1848, 1, [sym_function_type]), (STATE 1896, 1,
       [sym__type_not_void_not_function]), (STATE 1915, 1, [sym__late_builtin]), (STATE 1976, 1,
       [sym_inferred_type]), (STATE 1984, 1, [sym_final_builtin]), (STATE 2755, 1,
       [sym__var_or_type]), (STATE 2943, 1, [sym__type]), (STATE 3300, 1,
       [sym__final_const_var_or_type]), (STATE 1799, 2, [sym_comment,
       sym_documentation_comment])]),
     (92835, 28, [(ACTIONS 3, 1, [anon_sym_SLASH_SLASH]), (ACTIONS 5, 1,
       [anon_sym_SLASH_STAR]), (ACTIONS 7, 1, [anon_sym_SLASH_SLASH_SLASH]), (ACTIONS 9, 1,
       [sym__block_comment]), (ACTIONS 11, 1, [sym__documentation_block_comment]), (ACTIONS 17,
       1, [anon_sym_LPAREN]), (ACTIONS 33, 1, [sym_void_type]), (ACTIONS 45, 1,
       [anon_sym_Function]), (ACTIONS 143, 1, [anon_sym_AT]), (ACTIONS 446, 1,
       [anon_sym_required]), (ACTIONS 3408, 1, [sym_identifier]), (ACTIONS 4113, 1,
       [anon_sym_RBRACE]), (STATE 1308, 1, [aux_sym__metadata_repeat1]), (STATE 1361, 1,
       [sym_annotation]), (STATE 1463, 1, [sym__function_builtin_identifier]), (STATE 1530, 1,
       [sym__type_name]), (STATE 1605, 1, [aux_sym__function_type_tails]), (STATE 1704, 1,
       [sym__function_type_tail]), (STATE 1796, 1, [sym__type_not_function]), (STATE 1805, 1,
       [sym_record_type]), (STATE 1848, 1, [sym_function_type]), (STATE 1896, 1,
       [sym__type_not_void_not_function]), (STATE 1961, 1, [sym__metadata]), (STATE 2007, 1,
       [sym__required]), (STATE 3013, 1, [sym__named_parameter_type]), (STATE 3172, 1,
       [sym_typed_identifier]), (STATE 3495, 1, [sym__type]), (STATE 1800, 2, [sym_comment,
       sym_documentation_comment])])]"

lemma small_run_653: "small_run 1799 92749 ts_small_parse_table_653 1801 92921"
  by (simp add: small_simps ts_small_parse_table_653_def)

definition ts_small_parse_table_654 :: "small_group list" where
  "ts_small_parse_table_654 = [
     (92921, 28, [(ACTIONS 3, 1, [anon_sym_SLASH_SLASH]), (ACTIONS 5, 1,
       [anon_sym_SLASH_STAR]), (ACTIONS 7, 1, [anon_sym_SLASH_SLASH_SLASH]), (ACTIONS 9, 1,
       [sym__block_comment]), (ACTIONS 11, 1, [sym__documentation_block_comment]), (ACTIONS 17,
       1, [anon_sym_LPAREN]), (ACTIONS 33, 1, [sym_void_type]), (ACTIONS 45, 1,
       [anon_sym_Function]), (ACTIONS 143, 1, [anon_sym_AT]), (ACTIONS 446, 1,
       [anon_sym_required]), (ACTIONS 3408, 1, [sym_identifier]), (ACTIONS 4115, 1,
       [anon_sym_RBRACE]), (STATE 1308, 1, [aux_sym__metadata_repeat1]), (STATE 1361, 1,
       [sym_annotation]), (STATE 1463, 1, [sym__function_builtin_identifier]), (STATE 1530, 1,
       [sym__type_name]), (STATE 1605, 1, [aux_sym__function_type_tails]), (STATE 1704, 1,
       [sym__function_type_tail]), (STATE 1796, 1, [sym__type_not_function]), (STATE 1805, 1,
       [sym_record_type]), (STATE 1848, 1, [sym_function_type]), (STATE 1896, 1,
       [sym__type_not_void_not_function]), (STATE 1961, 1, [sym__metadata]), (STATE 2007, 1,
       [sym__required]), (STATE 3013, 1, [sym__named_parameter_type]), (STATE 3172, 1,
       [sym_typed_identifier]), (STATE 3495, 1, [sym__type]), (STATE 1801, 2, [sym_comment,
       sym_documentation_comment])]),
     (93007, 28, [(ACTIONS 3, 1, [anon_sym_SLASH_SLASH]), (ACTIONS 5, 1,
       [anon_sym_SLASH_STAR]), (ACTIONS 7, 1, [anon_sym_SLASH_SLASH_SLASH]), (ACTIONS 9, 1,
       [sym__block_comment]), (ACTIONS 11, 1, [sym__documentation_block_comment]), (ACTIONS 17,
       1, [anon_sym_LPAREN]), (ACTIONS 33, 1, [sym_void_type]), (ACTIONS 35, 1, [anon_sym_var]),
       (ACTIONS 45, 1, [anon_sym_Function]), (ACTIONS 67, 1, [anon_sym_late]), (ACTIONS 145, 1,
       [anon_sym_final]), (ACTIONS 2268, 1, [sym_const_builtin]), (ACTIONS 3408, 1,
       [sym_identifier]), (STATE 1463, 1, [sym__function_builtin_identifier]), (STATE 1530, 1,
       [sym__type_name]), (STATE 1605, 1, [aux_sym__function_type_tails]), (STATE 1704, 1,
       [sym__function_type_tail]), (STATE 1796, 1, [sym__type_not_function]), (STATE 1805, 1,
       [sym_record_type]), (STATE 1848, 1, [sym_function_type]), (STATE 1896, 1,
       [sym__type_not_void_not_function]), (STATE 1915, 1, [sym__late_builtin]), (STATE 1976, 1,
       [sym_inferred_type]), (STATE 1984, 1, [sym_final_builtin]), (STATE 2755, 1,
       [sym__var_or_type]), (STATE 2943, 1, [sym__type]), (STATE 3529, 1,
       [sym__final_const_var_or_type]), (STATE 1802, 2, [sym_comment,
       sym_documentation_comment])])]"

lemma small_run_654: "small_run 1801 92921 ts_small_parse_table_654 1803 93093"
  by (simp add: small_simps ts_small_parse_table_654_def)

definition ts_small_parse_table_655 :: "small_group list" where
  "ts_small_parse_table_655 = [
     (93093, 27, [(ACTIONS 3, 1, [anon_sym_SLASH_SLASH]), (ACTIONS 5, 1,
       [anon_sym_SLASH_STAR]), (ACTIONS 7, 1, [anon_sym_SLASH_SLASH_SLASH]), (ACTIONS 9, 1,
       [sym__block_comment]), (ACTIONS 11, 1, [sym__documentation_block_comment]), (ACTIONS 17,
       1, [anon_sym_LPAREN]), (ACTIONS 33, 1, [sym_void_type]), (ACTIONS 45, 1,
       [anon_sym_Function]), (ACTIONS 143, 1, [anon_sym_AT]), (ACTIONS 446, 1,
       [anon_sym_required]), (ACTIONS 3408, 1, [sym_identifier]), (STATE 1308, 1,
       [aux_sym__metadata_repeat1]), (STATE 1361, 1, [sym_annotation]), (STATE 1463, 1,
       [sym__function_builtin_identifier]), (STATE 1530, 1, [sym__type_name]), (STATE 1605, 1,
       [aux_sym__function_type_tails]), (STATE 1704, 1, [sym__function_type_tail]), (STATE 1796,
       1, [sym__type_not_function]), (STATE 1805, 1, [sym_record_type]), (STATE 1848, 1,
       [sym_function_type]), (STATE 1896, 1, [sym__type_not_void_not_function]), (STATE 1961, 1,
       [sym__metadata]), (STATE 2007, 1, [sym__required]), (STATE 3013, 1,
       [sym__named_parameter_type]), (STATE 3172, 1, [sym_typed_identifier]), (STATE 3495, 1,
       [sym__type]), (STATE 1803, 2, [sym_comment, sym_documentation_comment])]),
     (93176, 27, [(ACTIONS 3, 1, [anon_sym_SLASH_SLASH]), (ACTIONS 5, 1,
       [anon_sym_SLASH_STAR]), (ACTIONS 7, 1, [anon_sym_SLASH_SLASH_SLASH]), (ACTIONS 9, 1,
       [sym__block_comment]), (ACTIONS 11, 1, [sym__documentation_block_comment]), (ACTIONS 17,
       1, [anon_sym_LPAREN]), (ACTIONS 33, 1, [sym_void_type]), (ACTIONS 45, 1,
       [anon_sym_Function]), (ACTIONS 143, 1, [anon_sym_AT]), (ACTIONS 2154, 1,
       [anon_sym_QMARK]), (ACTIONS 2156, 1, [anon_sym_GT]), (ACTIONS 4117, 1, [sym_identifier]),
       (STATE 1308, 1, [aux_sym__metadata_repeat1]), (STATE 1361, 1, [sym_annotation]), (STATE
       1463, 1, [sym__function_builtin_identifier]), (STATE 1530, 1, [sym__type_name]), (STATE
       1605, 1, [aux_sym__function_type_tails]), (STATE 1704, 1, [sym__function_type_tail]),
       (STATE 1796, 1, [sym__type_not_function]), (STATE 1805, 1, [sym_record_type]), (STATE
       1848, 1, [sym_function_type]), (STATE 1896, 1, [sym__type_not_void_not_function]), (STATE
       2456, 1, [sym_nullable_type]), (STATE 2723, 1, [sym__type]), (STATE 2778, 1,
       [sym_type_parameter]), (STATE 2779, 1, [sym__metadata]), (STATE 1804, 2, [sym_comment,
       sym_documentation_comment])])]"

lemma small_run_655: "small_run 1803 93093 ts_small_parse_table_655 1805 93259"
  by (simp add: small_simps ts_small_parse_table_655_def)

definition ts_small_parse_table_656 :: "small_group list" where
  "ts_small_parse_table_656 = [
     (93259, 10, [(ACTIONS 3, 1, [anon_sym_SLASH_SLASH]), (ACTIONS 5, 1,
       [anon_sym_SLASH_STAR]), (ACTIONS 7, 1, [anon_sym_SLASH_SLASH_SLASH]), (ACTIONS 9, 1,
       [sym__block_comment]), (ACTIONS 11, 1, [sym__documentation_block_comment]), (ACTIONS 2154,
       1, [anon_sym_QMARK]), (STATE 1905, 1, [sym_nullable_type]), (STATE 1805, 2, [sym_comment,
       sym_documentation_comment]), (ACTIONS 4119, 8, [anon_sym_when, anon_sym_Function,
       anon_sym_get, anon_sym_operator, anon_sym_set, anon_sym_this, anon_sym_super,
       sym_identifier]), (ACTIONS 2548, 11, [anon_sym_LBRACE, anon_sym_RBRACE, anon_sym_COMMA,
       anon_sym_RBRACK, anon_sym_COLON, anon_sym_RPAREN, anon_sym_GT, anon_sym_SEMI,
       anon_sym_EQ_GT, anon_sym_AMP_AMP, anon_sym_PIPE_PIPE])]),
     (93308, 26, [(ACTIONS 3, 1, [anon_sym_SLASH_SLASH]), (ACTIONS 5, 1,
       [anon_sym_SLASH_STAR]), (ACTIONS 7, 1, [anon_sym_SLASH_SLASH_SLASH]), (ACTIONS 9, 1,
       [sym__block_comment]), (ACTIONS 11, 1, [sym__documentation_block_comment]), (ACTIONS 33,
       1, [sym_void_type]), (ACTIONS 45, 1, [anon_sym_Function]), (ACTIONS 3161, 1,
       [anon_sym_LT]), (ACTIONS 4121, 1, [sym_identifier]), (ACTIONS 4124, 1, [anon_sym_LBRACE]),
       (ACTIONS 4126, 1, [anon_sym_LBRACK]), (ACTIONS 4128, 1, [anon_sym_LPAREN]), (STATE 979, 1,
       [sym__record_literal_no_const]), (STATE 1530, 1, [sym__type_name]), (STATE 1704, 1,
       [sym__function_type_tail]), (STATE 1985, 1, [sym_record_type]), (STATE 2099, 1,
       [sym__type_not_void_not_function]), (STATE 2144, 1, [sym__function_builtin_identifier]),
       (STATE 2161, 1, [aux_sym__function_type_tails]), (STATE 2407, 1, [sym_function_type]),
       (STATE 2424, 1, [sym__type_not_function]), (STATE 2657, 1, [sym__type_not_void]), (STATE
       2987, 1, [sym__type]), (STATE 3135, 1, [sym_type_arguments]), (ACTIONS 4130, 2,
       [anon_sym_this, anon_sym_super]), (STATE 1806, 2, [sym_comment,
       sym_documentation_comment])]),
     (93389, 26, [(ACTIONS 3, 1, [anon_sym_SLASH_SLASH]), (ACTIONS 5, 1,
       [anon_sym_SLASH_STAR]), (ACTIONS 7, 1, [anon_sym_SLASH_SLASH_SLASH]), (ACTIONS 9, 1,
       [sym__block_comment]), (ACTIONS 11, 1, [sym__documentation_block_comment]), (ACTIONS 33,
       1, [sym_void_type]), (ACTIONS 45, 1, [anon_sym_Function]), (ACTIONS 3161, 1,
       [anon_sym_LT]), (ACTIONS 4121, 1, [sym_identifier]), (ACTIONS 4132, 1, [anon_sym_LBRACE]),
       (ACTIONS 4134, 1, [anon_sym_LBRACK]), (ACTIONS 4136, 1, [anon_sym_LPAREN]), (STATE 979, 1,
       [sym__record_literal_no_const]), (STATE 1530, 1, [sym__type_name]), (STATE 1704, 1,
       [sym__function_type_tail]), (STATE 1985, 1, [sym_record_type]), (STATE 2099, 1,
       [sym__type_not_void_not_function]), (STATE 2144, 1, [sym__function_builtin_identifier]),
       (STATE 2161, 1, [aux_sym__function_type_tails]), (STATE 2407, 1, [sym_function_type]),
       (STATE 2424, 1, [sym__type_not_function]), (STATE 2657, 1, [sym__type_not_void]), (STATE
       2987, 1, [sym__type]), (STATE 3163, 1, [sym_type_arguments]), (ACTIONS 4130, 2,
       [anon_sym_this, anon_sym_super]), (STATE 1807, 2, [sym_comment,
       sym_documentation_comment])])]"

lemma small_run_656: "small_run 1805 93259 ts_small_parse_table_656 1808 93470"
  by (simp add: small_simps ts_small_parse_table_656_def)

definition ts_small_parse_table_657 :: "small_group list" where
  "ts_small_parse_table_657 = [
     (93470, 19, [(ACTIONS 3, 1, [anon_sym_SLASH_SLASH]), (ACTIONS 5, 1,
       [anon_sym_SLASH_STAR]), (ACTIONS 7, 1, [anon_sym_SLASH_SLASH_SLASH]), (ACTIONS 9, 1,
       [sym__block_comment]), (ACTIONS 11, 1, [sym__documentation_block_comment]), (ACTIONS 83,
       1, [anon_sym_DQUOTE]), (ACTIONS 85, 1, [anon_sym_SQUOTE]), (ACTIONS 87, 1,
       [anon_sym_DQUOTE_DQUOTE_DQUOTE]), (ACTIONS 89, 1, [anon_sym_SQUOTE_SQUOTE_SQUOTE]),
       (ACTIONS 91, 1, [anon_sym_r_DQUOTE]), (ACTIONS 93, 1, [anon_sym_r_SQUOTE]), (ACTIONS 95,
       1, [anon_sym_r_DQUOTE_DQUOTE_DQUOTE]), (ACTIONS 97, 1, [anon_sym_r_SQUOTE_SQUOTE_SQUOTE]),
       (ACTIONS 4138, 1, [sym_identifier]), (STATE 474, 1, [aux_sym_string_literal_repeat1]),
       (STATE 2457, 1, [sym_string_literal]), (STATE 1808, 2, [sym_comment,
       sym_documentation_comment]), (STATE 3240, 2, [sym_uri, sym_dotted_identifier_list]),
       (STATE 627, 8, [sym__string_literal_double_quotes, sym__string_literal_single_quotes,
       sym__string_literal_double_quotes_multiple, sym__string_literal_single_quotes_multiple,
       sym__raw_string_literal_double_quotes, sym__raw_string_literal_single_quotes,
       sym__raw_string_literal_double_quotes_multiple,
       sym__raw_string_literal_single_quotes_multiple])]),
     (93537, 19, [(ACTIONS 3, 1, [anon_sym_SLASH_SLASH]), (ACTIONS 5, 1,
       [anon_sym_SLASH_STAR]), (ACTIONS 7, 1, [anon_sym_SLASH_SLASH_SLASH]), (ACTIONS 9, 1,
       [sym__block_comment]), (ACTIONS 11, 1, [sym__documentation_block_comment]), (ACTIONS 83,
       1, [anon_sym_DQUOTE]), (ACTIONS 85, 1, [anon_sym_SQUOTE]), (ACTIONS 87, 1,
       [anon_sym_DQUOTE_DQUOTE_DQUOTE]), (ACTIONS 89, 1, [anon_sym_SQUOTE_SQUOTE_SQUOTE]),
       (ACTIONS 91, 1, [anon_sym_r_DQUOTE]), (ACTIONS 93, 1, [anon_sym_r_SQUOTE]), (ACTIONS 95,
       1, [anon_sym_r_DQUOTE_DQUOTE_DQUOTE]), (ACTIONS 97, 1, [anon_sym_r_SQUOTE_SQUOTE_SQUOTE]),
       (ACTIONS 4138, 1, [sym_identifier]), (STATE 474, 1, [aux_sym_string_literal_repeat1]),
       (STATE 2457, 1, [sym_string_literal]), (STATE 1809, 2, [sym_comment,
       sym_documentation_comment]), (STATE 3107, 2, [sym_uri, sym_dotted_identifier_list]),
       (STATE 627, 8, [sym__string_literal_double_quotes, sym__string_literal_single_quotes,
       sym__string_literal_double_quotes_multiple, sym__string_literal_single_quotes_multiple,
       sym__raw_string_literal_double_quotes, sym__raw_string_literal_single_quotes,
       sym__raw_string_literal_double_quotes_multiple,
       sym__raw_string_literal_single_quotes_multiple])])]"

lemma small_run_657: "small_run 1808 93470 ts_small_parse_table_657 1810 93604"
  by (simp add: small_simps ts_small_parse_table_657_def)

definition ts_small_parse_table_658 :: "small_group list" where
  "ts_small_parse_table_658 = [
     (93604, 27, [(ACTIONS 3, 1, [anon_sym_SLASH_SLASH]), (ACTIONS 5, 1,
       [anon_sym_SLASH_STAR]), (ACTIONS 7, 1, [anon_sym_SLASH_SLASH_SLASH]), (ACTIONS 9, 1,
       [sym__block_comment]), (ACTIONS 11, 1, [sym__documentation_block_comment]), (ACTIONS 17,
       1, [anon_sym_LPAREN]), (ACTIONS 33, 1, [sym_void_type]), (ACTIONS 45, 1,
       [anon_sym_Function]), (ACTIONS 143, 1, [anon_sym_AT]), (ACTIONS 446, 1,
       [anon_sym_required]), (ACTIONS 3408, 1, [sym_identifier]), (STATE 1308, 1,
       [aux_sym__metadata_repeat1]), (STATE 1361, 1, [sym_annotation]), (STATE 1463, 1,
       [sym__function_builtin_identifier]), (STATE 1530, 1, [sym__type_name]), (STATE 1605, 1,
       [aux_sym__function_type_tails]), (STATE 1704, 1, [sym__function_type_tail]), (STATE 1796,
       1, [sym__type_not_function]), (STATE 1805, 1, [sym_record_type]), (STATE 1848, 1,
       [sym_function_type]), (STATE 1896, 1, [sym__type_not_void_not_function]), (STATE 1961, 1,
       [sym__metadata]), (STATE 2007, 1, [sym__required]), (STATE 2719, 1,
       [sym__named_parameter_type]), (STATE 3172, 1, [sym_typed_identifier]), (STATE 3495, 1,
       [sym__type]), (STATE 1810, 2, [sym_comment, sym_documentation_comment])]),
     (93687, 8, [(ACTIONS 3, 1, [anon_sym_SLASH_SLASH]), (ACTIONS 5, 1, [anon_sym_SLASH_STAR]),
       (ACTIONS 7, 1, [anon_sym_SLASH_SLASH_SLASH]), (ACTIONS 9, 1, [sym__block_comment]),
       (ACTIONS 11, 1, [sym__documentation_block_comment]), (STATE 1811, 2, [sym_comment,
       sym_documentation_comment]), (ACTIONS 1949, 4, [anon_sym_DQUOTE, anon_sym_SQUOTE,
       anon_sym_r_DQUOTE, anon_sym_r_SQUOTE]), (ACTIONS 1951, 16, [anon_sym_DQUOTE_DQUOTE_DQUOTE,
       anon_sym_SQUOTE_SQUOTE_SQUOTE, anon_sym_r_DQUOTE_DQUOTE_DQUOTE,
       anon_sym_r_SQUOTE_SQUOTE_SQUOTE, anon_sym_RBRACE, anon_sym_COMMA, anon_sym_RBRACK,
       anon_sym_COLON, anon_sym_RPAREN, anon_sym_QMARK, anon_sym_BANG, anon_sym_as,
       anon_sym_EQ_GT, anon_sym_when, anon_sym_AMP_AMP, anon_sym_PIPE_PIPE])]),
     (93731, 8, [(ACTIONS 3, 1, [anon_sym_SLASH_SLASH]), (ACTIONS 5, 1, [anon_sym_SLASH_STAR]),
       (ACTIONS 7, 1, [anon_sym_SLASH_SLASH_SLASH]), (ACTIONS 9, 1, [sym__block_comment]),
       (ACTIONS 11, 1, [sym__documentation_block_comment]), (STATE 1812, 2, [sym_comment,
       sym_documentation_comment]), (ACTIONS 1981, 4, [anon_sym_DQUOTE, anon_sym_SQUOTE,
       anon_sym_r_DQUOTE, anon_sym_r_SQUOTE]), (ACTIONS 1983, 16, [anon_sym_DQUOTE_DQUOTE_DQUOTE,
       anon_sym_SQUOTE_SQUOTE_SQUOTE, anon_sym_r_DQUOTE_DQUOTE_DQUOTE,
       anon_sym_r_SQUOTE_SQUOTE_SQUOTE, anon_sym_RBRACE, anon_sym_COMMA, anon_sym_RBRACK,
       anon_sym_COLON, anon_sym_RPAREN, anon_sym_QMARK, anon_sym_BANG, anon_sym_as,
       anon_sym_EQ_GT, anon_sym_when, anon_sym_AMP_AMP, anon_sym_PIPE_PIPE])])]"

lemma small_run_658: "small_run 1810 93604 ts_small_parse_table_658 1813 93775"
  by (simp add: small_simps ts_small_parse_table_658_def)

definition ts_small_parse_table_659 :: "small_group list" where
  "ts_small_parse_table_659 = [
     (93775, 26, [(ACTIONS 3, 1, [anon_sym_SLASH_SLASH]), (ACTIONS 5, 1,
       [anon_sym_SLASH_STAR]), (ACTIONS 7, 1, [anon_sym_SLASH_SLASH_SLASH]), (ACTIONS 9, 1,
       [sym__block_comment]), (ACTIONS 11, 1, [sym__documentation_block_comment]), (ACTIONS 17,
       1, [anon_sym_LPAREN]), (ACTIONS 33, 1, [sym_void_type]), (ACTIONS 45, 1,
       [anon_sym_Function]), (ACTIONS 143, 1, [anon_sym_AT]), (ACTIONS 3408, 1,
       [sym_identifier]), (ACTIONS 4140, 1, [anon_sym_RBRACE]), (STATE 1308, 1,
       [aux_sym__metadata_repeat1]), (STATE 1361, 1, [sym_annotation]), (STATE 1463, 1,
       [sym__function_builtin_identifier]), (STATE 1530, 1, [sym__type_name]), (STATE 1605, 1,
       [aux_sym__function_type_tails]), (STATE 1704, 1, [sym__function_type_tail]), (STATE 1796,
       1, [sym__type_not_function]), (STATE 1805, 1, [sym_record_type]), (STATE 1848, 1,
       [sym_function_type]), (STATE 1896, 1, [sym__type_not_void_not_function]), (STATE 2043, 1,
       [sym__metadata]), (STATE 3101, 1, [sym_typed_identifier]), (STATE 3254, 1,
       [sym_record_type_named_field]), (STATE 3495, 1, [sym__type]), (STATE 1813, 2,
       [sym_comment, sym_documentation_comment])]),
     (93855, 26, [(ACTIONS 3, 1, [anon_sym_SLASH_SLASH]), (ACTIONS 5, 1,
       [anon_sym_SLASH_STAR]), (ACTIONS 7, 1, [anon_sym_SLASH_SLASH_SLASH]), (ACTIONS 9, 1,
       [sym__block_comment]), (ACTIONS 11, 1, [sym__documentation_block_comment]), (ACTIONS 17,
       1, [anon_sym_LPAREN]), (ACTIONS 33, 1, [sym_void_type]), (ACTIONS 45, 1,
       [anon_sym_Function]), (ACTIONS 143, 1, [anon_sym_AT]), (ACTIONS 3408, 1,
       [sym_identifier]), (ACTIONS 4142, 1, [anon_sym_RBRACK]), (STATE 1308, 1,
       [aux_sym__metadata_repeat1]), (STATE 1361, 1, [sym_annotation]), (STATE 1463, 1,
       [sym__function_builtin_identifier]), (STATE 1530, 1, [sym__type_name]), (STATE 1605, 1,
       [aux_sym__function_type_tails]), (STATE 1704, 1, [sym__function_type_tail]), (STATE 1796,
       1, [sym__type_not_function]), (STATE 1805, 1, [sym_record_type]), (STATE 1848, 1,
       [sym_function_type]), (STATE 1896, 1, [sym__type_not_void_not_function]), (STATE 2033, 1,
       [sym__metadata]), (STATE 2639, 1, [sym__type]), (STATE 2770, 1, [sym_typed_identifier]),
       (STATE 3005, 1, [sym_normal_parameter_type]), (STATE 1814, 2, [sym_comment,
       sym_documentation_comment])])]"

lemma small_run_659: "small_run 1813 93775 ts_small_parse_table_659 1815 93935"
  by (simp add: small_simps ts_small_parse_table_659_def)

definition ts_small_parse_table_660 :: "small_group list" where
  "ts_small_parse_table_660 = [
     (93935, 26, [(ACTIONS 3, 1, [anon_sym_SLASH_SLASH]), (ACTIONS 5, 1,
       [anon_sym_SLASH_STAR]), (ACTIONS 7, 1, [anon_sym_SLASH_SLASH_SLASH]), (ACTIONS 9, 1,
       [sym__block_comment]), (ACTIONS 11, 1, [sym__documentation_block_comment]), (ACTIONS 17,
       1, [anon_sym_LPAREN]), (ACTIONS 33, 1, [sym_void_type]), (ACTIONS 45, 1,
       [anon_sym_Function]), (ACTIONS 143, 1, [anon_sym_AT]), (ACTIONS 3408, 1,
       [sym_identifier]), (ACTIONS 4144, 1, [anon_sym_LBRACE]), (ACTIONS 4146, 1,
       [anon_sym_RPAREN]), (STATE 1308, 1, [aux_sym__metadata_repeat1]), (STATE 1361, 1,
       [sym_annotation]), (STATE 1463, 1, [sym__function_builtin_identifier]), (STATE 1530, 1,
       [sym__type_name]), (STATE 1605, 1, [aux_sym__function_type_tails]), (STATE 1704, 1,
       [sym__function_type_tail]), (STATE 1796, 1, [sym__type_not_function]), (STATE 1805, 1,
       [sym_record_type]), (STATE 1848, 1, [sym_function_type]), (STATE 1896, 1,
       [sym__type_not_void_not_function]), (STATE 2088, 1, [sym__metadata]), (STATE 2670, 1,
       [sym_record_type_field]), (STATE 2822, 1, [sym__type]), (STATE 1815, 2, [sym_comment,
       sym_documentation_comment])]),
     (94015, 26, [(ACTIONS 3, 1, [anon_sym_SLASH_SLASH]), (ACTIONS 5, 1,
       [anon_sym_SLASH_STAR]), (ACTIONS 7, 1, [anon_sym_SLASH_SLASH_SLASH]), (ACTIONS 9, 1,
       [sym__block_comment]), (ACTIONS 11, 1, [sym__documentation_block_comment]), (ACTIONS 17,
       1, [anon_sym_LPAREN]), (ACTIONS 33, 1, [sym_void_type]), (ACTIONS 45, 1,
       [anon_sym_Function]), (ACTIONS 143, 1, [anon_sym_AT]), (ACTIONS 3408, 1,
       [sym_identifier]), (ACTIONS 4148, 1, [anon_sym_RBRACE]), (STATE 1308, 1,
       [aux_sym__metadata_repeat1]), (STATE 1361, 1, [sym_annotation]), (STATE 1463, 1,
       [sym__function_builtin_identifier]), (STATE 1530, 1, [sym__type_name]), (STATE 1605, 1,
       [aux_sym__function_type_tails]), (STATE 1704, 1, [sym__function_type_tail]), (STATE 1796,
       1, [sym__type_not_function]), (STATE 1805, 1, [sym_record_type]), (STATE 1848, 1,
       [sym_function_type]), (STATE 1896, 1, [sym__type_not_void_not_function]), (STATE 2043, 1,
       [sym__metadata]), (STATE 3101, 1, [sym_typed_identifier]), (STATE 3254, 1,
       [sym_record_type_named_field]), (STATE 3495, 1, [sym__type]), (STATE 1816, 2,
       [sym_comment, sym_documentation_comment])])]"

lemma small_run_660: "small_run 1815 93935 ts_small_parse_table_660 1817 94095"
  by (simp add: small_simps ts_small_parse_table_660_def)

definition ts_small_parse_table_661 :: "small_group list" where
  "ts_small_parse_table_661 = [
     (94095, 19, [(ACTIONS 3, 1, [anon_sym_SLASH_SLASH]), (ACTIONS 5, 1,
       [anon_sym_SLASH_STAR]), (ACTIONS 7, 1, [anon_sym_SLASH_SLASH_SLASH]), (ACTIONS 9, 1,
       [sym__block_comment]), (ACTIONS 11, 1, [sym__documentation_block_comment]), (ACTIONS 83,
       1, [anon_sym_DQUOTE]), (ACTIONS 85, 1, [anon_sym_SQUOTE]), (ACTIONS 87, 1,
       [anon_sym_DQUOTE_DQUOTE_DQUOTE]), (ACTIONS 89, 1, [anon_sym_SQUOTE_SQUOTE_SQUOTE]),
       (ACTIONS 91, 1, [anon_sym_r_DQUOTE]), (ACTIONS 93, 1, [anon_sym_r_SQUOTE]), (ACTIONS 95,
       1, [anon_sym_r_DQUOTE_DQUOTE_DQUOTE]), (ACTIONS 97, 1, [anon_sym_r_SQUOTE_SQUOTE_SQUOTE]),
       (STATE 474, 1, [aux_sym_string_literal_repeat1]), (STATE 2237, 1, [sym_uri]), (STATE 2320,
       1, [sym_configurable_uri]), (STATE 2457, 1, [sym_string_literal]), (STATE 1817, 2,
       [sym_comment, sym_documentation_comment]), (STATE 627, 8,
       [sym__string_literal_double_quotes, sym__string_literal_single_quotes,
       sym__string_literal_double_quotes_multiple, sym__string_literal_single_quotes_multiple,
       sym__raw_string_literal_double_quotes, sym__raw_string_literal_single_quotes,
       sym__raw_string_literal_double_quotes_multiple,
       sym__raw_string_literal_single_quotes_multiple])]),
     (94161, 24, [(ACTIONS 3, 1, [anon_sym_SLASH_SLASH]), (ACTIONS 5, 1,
       [anon_sym_SLASH_STAR]), (ACTIONS 7, 1, [anon_sym_SLASH_SLASH_SLASH]), (ACTIONS 9, 1,
       [sym__block_comment]), (ACTIONS 11, 1, [sym__documentation_block_comment]), (ACTIONS 17,
       1, [anon_sym_LPAREN]), (ACTIONS 33, 1, [sym_void_type]), (ACTIONS 45, 1,
       [anon_sym_Function]), (ACTIONS 47, 1, [anon_sym_get]), (ACTIONS 61, 1, [anon_sym_set]),
       (ACTIONS 4150, 1, [sym_identifier]), (STATE 1463, 1, [sym__function_builtin_identifier]),
       (STATE 1530, 1, [sym__type_name]), (STATE 1605, 1, [aux_sym__function_type_tails]), (STATE
       1704, 1, [sym__function_type_tail]), (STATE 1796, 1, [sym__type_not_function]), (STATE
       1805, 1, [sym_record_type]), (STATE 1848, 1, [sym_function_type]), (STATE 1896, 1,
       [sym__type_not_void_not_function]), (STATE 2343, 1, [sym__set]), (STATE 2344, 1,
       [sym__get]), (STATE 2567, 1, [sym__type]), (STATE 1818, 2, [sym_comment,
       sym_documentation_comment]), (STATE 3104, 3, [sym_getter_signature, sym_setter_signature,
       sym_function_signature])])]"

lemma small_run_661: "small_run 1817 94095 ts_small_parse_table_661 1819 94237"
  by (simp add: small_simps ts_small_parse_table_661_def)

definition ts_small_parse_table_662 :: "small_group list" where
  "ts_small_parse_table_662 = [
     (94237, 26, [(ACTIONS 3, 1, [anon_sym_SLASH_SLASH]), (ACTIONS 5, 1,
       [anon_sym_SLASH_STAR]), (ACTIONS 7, 1, [anon_sym_SLASH_SLASH_SLASH]), (ACTIONS 9, 1,
       [sym__block_comment]), (ACTIONS 11, 1, [sym__documentation_block_comment]), (ACTIONS 17,
       1, [anon_sym_LPAREN]), (ACTIONS 33, 1, [sym_void_type]), (ACTIONS 45, 1,
       [anon_sym_Function]), (ACTIONS 143, 1, [anon_sym_AT]), (ACTIONS 3408, 1,
       [sym_identifier]), (ACTIONS 4152, 1, [anon_sym_RBRACE]), (STATE 1308, 1,
       [aux_sym__metadata_repeat1]), (STATE 1361, 1, [sym_annotation]), (STATE 1463, 1,
       [sym__function_builtin_identifier]), (STATE 1530, 1, [sym__type_name]), (STATE 1605, 1,
       [aux_sym__function_type_tails]), (STATE 1704, 1, [sym__function_type_tail]), (STATE 1796,
       1, [sym__type_not_function]), (STATE 1805, 1, [sym_record_type]), (STATE 1848, 1,
       [sym_function_type]), (STATE 1896, 1, [sym__type_not_void_not_function]), (STATE 2043, 1,
       [sym__metadata]), (STATE 3101, 1, [sym_typed_identifier]), (STATE 3254, 1,
       [sym_record_type_named_field]), (STATE 3495, 1, [sym__type]), (STATE 1819, 2,
       [sym_comment, sym_documentation_comment])]),
     (94317, 26, [(ACTIONS 3, 1, [anon_sym_SLASH_SLASH]), (ACTIONS 5, 1,
       [anon_sym_SLASH_STAR]), (ACTIONS 7, 1, [anon_sym_SLASH_SLASH_SLASH]), (ACTIONS 9, 1,
       [sym__block_comment]), (ACTIONS 11, 1, [sym__documentation_block_comment]), (ACTIONS 17,
       1, [anon_sym_LPAREN]), (ACTIONS 33, 1, [sym_void_type]), (ACTIONS 45, 1,
       [anon_sym_Function]), (ACTIONS 143, 1, [anon_sym_AT]), (ACTIONS 3408, 1,
       [sym_identifier]), (ACTIONS 4154, 1, [anon_sym_LBRACE]), (ACTIONS 4156, 1,
       [anon_sym_RPAREN]), (STATE 1308, 1, [aux_sym__metadata_repeat1]), (STATE 1361, 1,
       [sym_annotation]), (STATE 1463, 1, [sym__function_builtin_identifier]), (STATE 1530, 1,
       [sym__type_name]), (STATE 1605, 1, [aux_sym__function_type_tails]), (STATE 1704, 1,
       [sym__function_type_tail]), (STATE 1796, 1, [sym__type_not_function]), (STATE 1805, 1,
       [sym_record_type]), (STATE 1848, 1, [sym_function_type]), (STATE 1896, 1,
       [sym__type_not_void_not_function]), (STATE 2088, 1, [sym__metadata]), (STATE 2822, 1,
       [sym__type]), (STATE 3056, 1, [sym_record_type_field]), (STATE 1820, 2, [sym_comment,
       sym_documentation_comment])])]"

lemma small_run_662: "small_run 1819 94237 ts_small_parse_table_662 1821 94397"
  by (simp add: small_simps ts_small_parse_table_662_def)

definition ts_small_parse_table_663 :: "small_group list" where
  "ts_small_parse_table_663 = [
     (94397, 26, [(ACTIONS 3, 1, [anon_sym_SLASH_SLASH]), (ACTIONS 5, 1,
       [anon_sym_SLASH_STAR]), (ACTIONS 7, 1, [anon_sym_SLASH_SLASH_SLASH]), (ACTIONS 9, 1,
       [sym__block_comment]), (ACTIONS 11, 1, [sym__documentation_block_comment]), (ACTIONS 17,
       1, [anon_sym_LPAREN]), (ACTIONS 33, 1, [sym_void_type]), (ACTIONS 45, 1,
       [anon_sym_Function]), (ACTIONS 143, 1, [anon_sym_AT]), (ACTIONS 3408, 1,
       [sym_identifier]), (ACTIONS 4158, 1, [anon_sym_LBRACE]), (ACTIONS 4160, 1,
       [anon_sym_RPAREN]), (STATE 1308, 1, [aux_sym__metadata_repeat1]), (STATE 1361, 1,
       [sym_annotation]), (STATE 1463, 1, [sym__function_builtin_identifier]), (STATE 1530, 1,
       [sym__type_name]), (STATE 1605, 1, [aux_sym__function_type_tails]), (STATE 1704, 1,
       [sym__function_type_tail]), (STATE 1796, 1, [sym__type_not_function]), (STATE 1805, 1,
       [sym_record_type]), (STATE 1848, 1, [sym_function_type]), (STATE 1896, 1,
       [sym__type_not_void_not_function]), (STATE 2088, 1, [sym__metadata]), (STATE 2822, 1,
       [sym__type]), (STATE 3056, 1, [sym_record_type_field]), (STATE 1821, 2, [sym_comment,
       sym_documentation_comment])]),
     (94477, 8, [(ACTIONS 3, 1, [anon_sym_SLASH_SLASH]), (ACTIONS 5, 1, [anon_sym_SLASH_STAR]),
       (ACTIONS 7, 1, [anon_sym_SLASH_SLASH_SLASH]), (ACTIONS 9, 1, [sym__block_comment]),
       (ACTIONS 11, 1, [sym__documentation_block_comment]), (STATE 1822, 2, [sym_comment,
       sym_documentation_comment]), (ACTIONS 1977, 4, [anon_sym_DQUOTE, anon_sym_SQUOTE,
       anon_sym_r_DQUOTE, anon_sym_r_SQUOTE]), (ACTIONS 1979, 16, [anon_sym_DQUOTE_DQUOTE_DQUOTE,
       anon_sym_SQUOTE_SQUOTE_SQUOTE, anon_sym_r_DQUOTE_DQUOTE_DQUOTE,
       anon_sym_r_SQUOTE_SQUOTE_SQUOTE, anon_sym_RBRACE, anon_sym_COMMA, anon_sym_RBRACK,
       anon_sym_COLON, anon_sym_RPAREN, anon_sym_QMARK, anon_sym_BANG, anon_sym_as,
       anon_sym_EQ_GT, anon_sym_when, anon_sym_AMP_AMP, anon_sym_PIPE_PIPE])]),
     (94521, 26, [(ACTIONS 3, 1, [anon_sym_SLASH_SLASH]), (ACTIONS 5, 1,
       [anon_sym_SLASH_STAR]), (ACTIONS 7, 1, [anon_sym_SLASH_SLASH_SLASH]), (ACTIONS 9, 1,
       [sym__block_comment]), (ACTIONS 11, 1, [sym__documentation_block_comment]), (ACTIONS 17,
       1, [anon_sym_LPAREN]), (ACTIONS 33, 1, [sym_void_type]), (ACTIONS 45, 1,
       [anon_sym_Function]), (ACTIONS 143, 1, [anon_sym_AT]), (ACTIONS 3408, 1,
       [sym_identifier]), (ACTIONS 4162, 1, [anon_sym_LBRACE]), (ACTIONS 4164, 1,
       [anon_sym_RPAREN]), (STATE 1308, 1, [aux_sym__metadata_repeat1]), (STATE 1361, 1,
       [sym_annotation]), (STATE 1463, 1, [sym__function_builtin_identifier]), (STATE 1530, 1,
       [sym__type_name]), (STATE 1605, 1, [aux_sym__function_type_tails]), (STATE 1704, 1,
       [sym__function_type_tail]), (STATE 1796, 1, [sym__type_not_function]), (STATE 1805, 1,
       [sym_record_type]), (STATE 1848, 1, [sym_function_type]), (STATE 1896, 1,
       [sym__type_not_void_not_function]), (STATE 2088, 1, [sym__metadata]), (STATE 2822, 1,
       [sym__type]), (STATE 3056, 1, [sym_record_type_field]), (STATE 1823, 2, [sym_comment,
       sym_documentation_comment])])]"

lemma small_run_663: "small_run 1821 94397 ts_small_parse_table_663 1824 94601"
  by (simp add: small_simps ts_small_parse_table_663_def)

definition ts_small_parse_table_664 :: "small_group list" where
  "ts_small_parse_table_664 = [
     (94601, 26, [(ACTIONS 3, 1, [anon_sym_SLASH_SLASH]), (ACTIONS 5, 1,
       [anon_sym_SLASH_STAR]), (ACTIONS 7, 1, [anon_sym_SLASH_SLASH_SLASH]), (ACTIONS 9, 1,
       [sym__block_comment]), (ACTIONS 11, 1, [sym__documentation_block_comment]), (ACTIONS 17,
       1, [anon_sym_LPAREN]), (ACTIONS 33, 1, [sym_void_type]), (ACTIONS 45, 1,
       [anon_sym_Function]), (ACTIONS 143, 1, [anon_sym_AT]), (ACTIONS 3408, 1,
       [sym_identifier]), (ACTIONS 4166, 1, [anon_sym_LBRACE]), (ACTIONS 4168, 1,
       [anon_sym_RPAREN]), (STATE 1308, 1, [aux_sym__metadata_repeat1]), (STATE 1361, 1,
       [sym_annotation]), (STATE 1463, 1, [sym__function_builtin_identifier]), (STATE 1530, 1,
       [sym__type_name]), (STATE 1605, 1, [aux_sym__function_type_tails]), (STATE 1704, 1,
       [sym__function_type_tail]), (STATE 1796, 1, [sym__type_not_function]), (STATE 1805, 1,
       [sym_record_type]), (STATE 1848, 1, [sym_function_type]), (STATE 1896, 1,
       [sym__type_not_void_not_function]), (STATE 2088, 1, [sym__metadata]), (STATE 2822, 1,
       [sym__type]), (STATE 3056, 1, [sym_record_type_field]), (STATE 1824, 2, [sym_comment,
       sym_documentation_comment])]),
     (94681, 8, [(ACTIONS 3, 1, [anon_sym_SLASH_SLASH]), (ACTIONS 5, 1, [anon_sym_SLASH_STAR]),
       (ACTIONS 7, 1, [anon_sym_SLASH_SLASH_SLASH]), (ACTIONS 9, 1, [sym__block_comment]),
       (ACTIONS 11, 1, [sym__documentation_block_comment]), (STATE 1825, 2, [sym_comment,
       sym_documentation_comment]), (ACTIONS 1917, 4, [anon_sym_DQUOTE, anon_sym_SQUOTE,
       anon_sym_r_DQUOTE, anon_sym_r_SQUOTE]), (ACTIONS 1919, 16, [anon_sym_DQUOTE_DQUOTE_DQUOTE,
       anon_sym_SQUOTE_SQUOTE_SQUOTE, anon_sym_r_DQUOTE_DQUOTE_DQUOTE,
       anon_sym_r_SQUOTE_SQUOTE_SQUOTE, anon_sym_RBRACE, anon_sym_COMMA, anon_sym_RBRACK,
       anon_sym_COLON, anon_sym_RPAREN, anon_sym_QMARK, anon_sym_BANG, anon_sym_as,
       anon_sym_EQ_GT, anon_sym_when, anon_sym_AMP_AMP, anon_sym_PIPE_PIPE])]),
     (94725, 8, [(ACTIONS 3, 1, [anon_sym_SLASH_SLASH]), (ACTIONS 5, 1, [anon_sym_SLASH_STAR]),
       (ACTIONS 7, 1, [anon_sym_SLASH_SLASH_SLASH]), (ACTIONS 9, 1, [sym__block_comment]),
       (ACTIONS 11, 1, [sym__documentation_block_comment]), (STATE 1826, 2, [sym_comment,
       sym_documentation_comment]), (ACTIONS 1985, 4, [anon_sym_DQUOTE, anon_sym_SQUOTE,
       anon_sym_r_DQUOTE, anon_sym_r_SQUOTE]), (ACTIONS 1987, 16, [anon_sym_DQUOTE_DQUOTE_DQUOTE,
       anon_sym_SQUOTE_SQUOTE_SQUOTE, anon_sym_r_DQUOTE_DQUOTE_DQUOTE,
       anon_sym_r_SQUOTE_SQUOTE_SQUOTE, anon_sym_RBRACE, anon_sym_COMMA, anon_sym_RBRACK,
       anon_sym_COLON, anon_sym_RPAREN, anon_sym_QMARK, anon_sym_BANG, anon_sym_as,
       anon_sym_EQ_GT, anon_sym_when, anon_sym_AMP_AMP, anon_sym_PIPE_PIPE])])]"

lemma small_run_664: "small_run 1824 94601 ts_small_parse_table_664 1827 94769"
  by (simp add: small_simps ts_small_parse_table_664_def)

definition ts_small_parse_table_665 :: "small_group list" where
  "ts_small_parse_table_665 = [
     (94769, 8, [(ACTIONS 3, 1, [anon_sym_SLASH_SLASH]), (ACTIONS 5, 1, [anon_sym_SLASH_STAR]),
       (ACTIONS 7, 1, [anon_sym_SLASH_SLASH_SLASH]), (ACTIONS 9, 1, [sym__block_comment]),
       (ACTIONS 11, 1, [sym__documentation_block_comment]), (STATE 1827, 2, [sym_comment,
       sym_documentation_comment]), (ACTIONS 1989, 4, [anon_sym_DQUOTE, anon_sym_SQUOTE,
       anon_sym_r_DQUOTE, anon_sym_r_SQUOTE]), (ACTIONS 1991, 16, [anon_sym_DQUOTE_DQUOTE_DQUOTE,
       anon_sym_SQUOTE_SQUOTE_SQUOTE, anon_sym_r_DQUOTE_DQUOTE_DQUOTE,
       anon_sym_r_SQUOTE_SQUOTE_SQUOTE, anon_sym_RBRACE, anon_sym_COMMA, anon_sym_RBRACK,
       anon_sym_COLON, anon_sym_RPAREN, anon_sym_QMARK, anon_sym_BANG, anon_sym_as,
       anon_sym_EQ_GT, anon_sym_when, anon_sym_AMP_AMP, anon_sym_PIPE_PIPE])]),
     (94813, 8, [(ACTIONS 3, 1, [anon_sym_SLASH_SLASH]), (ACTIONS 5, 1, [anon_sym_SLASH_STAR]),
       (ACTIONS 7, 1, [anon_sym_SLASH_SLASH_SLASH]), (ACTIONS 9, 1, [sym__block_comment]),
       (ACTIONS 11, 1, [sym__documentation_block_comment]), (STATE 1828, 2, [sym_comment,
       sym_documentation_comment]), (ACTIONS 1973, 4, [anon_sym_DQUOTE, anon_sym_SQUOTE,
       anon_sym_r_DQUOTE, anon_sym_r_SQUOTE]), (ACTIONS 1975, 16, [anon_sym_DQUOTE_DQUOTE_DQUOTE,
       anon_sym_SQUOTE_SQUOTE_SQUOTE, anon_sym_r_DQUOTE_DQUOTE_DQUOTE,
       anon_sym_r_SQUOTE_SQUOTE_SQUOTE, anon_sym_RBRACE, anon_sym_COMMA, anon_sym_RBRACK,
       anon_sym_COLON, anon_sym_RPAREN, anon_sym_QMARK, anon_sym_BANG, anon_sym_as,
       anon_sym_EQ_GT, anon_sym_when, anon_sym_AMP_AMP, anon_sym_PIPE_PIPE])]),
     (94857, 8, [(ACTIONS 3, 1, [anon_sym_SLASH_SLASH]), (ACTIONS 5, 1, [anon_sym_SLASH_STAR]),
       (ACTIONS 7, 1, [anon_sym_SLASH_SLASH_SLASH]), (ACTIONS 9, 1, [sym__block_comment]),
       (ACTIONS 11, 1, [sym__documentation_block_comment]), (STATE 1829, 2, [sym_comment,
       sym_documentation_comment]), (ACTIONS 1969, 4, [anon_sym_DQUOTE, anon_sym_SQUOTE,
       anon_sym_r_DQUOTE, anon_sym_r_SQUOTE]), (ACTIONS 1971, 16, [anon_sym_DQUOTE_DQUOTE_DQUOTE,
       anon_sym_SQUOTE_SQUOTE_SQUOTE, anon_sym_r_DQUOTE_DQUOTE_DQUOTE,
       anon_sym_r_SQUOTE_SQUOTE_SQUOTE, anon_sym_RBRACE, anon_sym_COMMA, anon_sym_RBRACK,
       anon_sym_COLON, anon_sym_RPAREN, anon_sym_QMARK, anon_sym_BANG, anon_sym_as,
       anon_sym_EQ_GT, anon_sym_when, anon_sym_AMP_AMP, anon_sym_PIPE_PIPE])])]"

lemma small_run_665: "small_run 1827 94769 ts_small_parse_table_665 1830 94901"
  by (simp add: small_simps ts_small_parse_table_665_def)

definition ts_small_parse_table_666 :: "small_group list" where
  "ts_small_parse_table_666 = [
     (94901, 26, [(ACTIONS 3, 1, [anon_sym_SLASH_SLASH]), (ACTIONS 5, 1,
       [anon_sym_SLASH_STAR]), (ACTIONS 7, 1, [anon_sym_SLASH_SLASH_SLASH]), (ACTIONS 9, 1,
       [sym__block_comment]), (ACTIONS 11, 1, [sym__documentation_block_comment]), (ACTIONS 17,
       1, [anon_sym_LPAREN]), (ACTIONS 33, 1, [sym_void_type]), (ACTIONS 45, 1,
       [anon_sym_Function]), (ACTIONS 143, 1, [anon_sym_AT]), (ACTIONS 3408, 1,
       [sym_identifier]), (ACTIONS 4170, 1, [anon_sym_LBRACE]), (ACTIONS 4172, 1,
       [anon_sym_RPAREN]), (STATE 1308, 1, [aux_sym__metadata_repeat1]), (STATE 1361, 1,
       [sym_annotation]), (STATE 1463, 1, [sym__function_builtin_identifier]), (STATE 1530, 1,
       [sym__type_name]), (STATE 1605, 1, [aux_sym__function_type_tails]), (STATE 1704, 1,
       [sym__function_type_tail]), (STATE 1796, 1, [sym__type_not_function]), (STATE 1805, 1,
       [sym_record_type]), (STATE 1848, 1, [sym_function_type]), (STATE 1896, 1,
       [sym__type_not_void_not_function]), (STATE 2088, 1, [sym__metadata]), (STATE 2822, 1,
       [sym__type]), (STATE 3056, 1, [sym_record_type_field]), (STATE 1830, 2, [sym_comment,
       sym_documentation_comment])]),
     (94981, 8, [(ACTIONS 3, 1, [anon_sym_SLASH_SLASH]), (ACTIONS 5, 1, [anon_sym_SLASH_STAR]),
       (ACTIONS 7, 1, [anon_sym_SLASH_SLASH_SLASH]), (ACTIONS 9, 1, [sym__block_comment]),
       (ACTIONS 11, 1, [sym__documentation_block_comment]), (STATE 1831, 2, [sym_comment,
       sym_documentation_comment]), (ACTIONS 1965, 4, [anon_sym_DQUOTE, anon_sym_SQUOTE,
       anon_sym_r_DQUOTE, anon_sym_r_SQUOTE]), (ACTIONS 1967, 16, [anon_sym_DQUOTE_DQUOTE_DQUOTE,
       anon_sym_SQUOTE_SQUOTE_SQUOTE, anon_sym_r_DQUOTE_DQUOTE_DQUOTE,
       anon_sym_r_SQUOTE_SQUOTE_SQUOTE, anon_sym_RBRACE, anon_sym_COMMA, anon_sym_RBRACK,
       anon_sym_COLON, anon_sym_RPAREN, anon_sym_QMARK, anon_sym_BANG, anon_sym_as,
       anon_sym_EQ_GT, anon_sym_when, anon_sym_AMP_AMP, anon_sym_PIPE_PIPE])]),
     (95025, 8, [(ACTIONS 3, 1, [anon_sym_SLASH_SLASH]), (ACTIONS 5, 1, [anon_sym_SLASH_STAR]),
       (ACTIONS 7, 1, [anon_sym_SLASH_SLASH_SLASH]), (ACTIONS 9, 1, [sym__block_comment]),
       (ACTIONS 11, 1, [sym__documentation_block_comment]), (STATE 1832, 2, [sym_comment,
       sym_documentation_comment]), (ACTIONS 1953, 4, [anon_sym_DQUOTE, anon_sym_SQUOTE,
       anon_sym_r_DQUOTE, anon_sym_r_SQUOTE]), (ACTIONS 1955, 16, [anon_sym_DQUOTE_DQUOTE_DQUOTE,
       anon_sym_SQUOTE_SQUOTE_SQUOTE, anon_sym_r_DQUOTE_DQUOTE_DQUOTE,
       anon_sym_r_SQUOTE_SQUOTE_SQUOTE, anon_sym_RBRACE, anon_sym_COMMA, anon_sym_RBRACK,
       anon_sym_COLON, anon_sym_RPAREN, anon_sym_QMARK, anon_sym_BANG, anon_sym_as,
       anon_sym_EQ_GT, anon_sym_when, anon_sym_AMP_AMP, anon_sym_PIPE_PIPE])])]"

lemma small_run_666: "small_run 1830 94901 ts_small_parse_table_666 1833 95069"
  by (simp add: small_simps ts_small_parse_table_666_def)

definition ts_small_parse_table_667 :: "small_group list" where
  "ts_small_parse_table_667 = [
     (95069, 26, [(ACTIONS 3, 1, [anon_sym_SLASH_SLASH]), (ACTIONS 5, 1,
       [anon_sym_SLASH_STAR]), (ACTIONS 7, 1, [anon_sym_SLASH_SLASH_SLASH]), (ACTIONS 9, 1,
       [sym__block_comment]), (ACTIONS 11, 1, [sym__documentation_block_comment]), (ACTIONS 17,
       1, [anon_sym_LPAREN]), (ACTIONS 33, 1, [sym_void_type]), (ACTIONS 45, 1,
       [anon_sym_Function]), (ACTIONS 143, 1, [anon_sym_AT]), (ACTIONS 488, 1,
       [anon_sym_RPAREN]), (ACTIONS 3408, 1, [sym_identifier]), (ACTIONS 4174, 1,
       [anon_sym_LBRACE]), (STATE 1308, 1, [aux_sym__metadata_repeat1]), (STATE 1361, 1,
       [sym_annotation]), (STATE 1463, 1, [sym__function_builtin_identifier]), (STATE 1530, 1,
       [sym__type_name]), (STATE 1605, 1, [aux_sym__function_type_tails]), (STATE 1704, 1,
       [sym__function_type_tail]), (STATE 1796, 1, [sym__type_not_function]), (STATE 1805, 1,
       [sym_record_type]), (STATE 1848, 1, [sym_function_type]), (STATE 1896, 1,
       [sym__type_not_void_not_function]), (STATE 2088, 1, [sym__metadata]), (STATE 2822, 1,
       [sym__type]), (STATE 2827, 1, [sym_record_type_field]), (STATE 1833, 2, [sym_comment,
       sym_documentation_comment])]),
     (95149, 26, [(ACTIONS 3, 1, [anon_sym_SLASH_SLASH]), (ACTIONS 5, 1,
       [anon_sym_SLASH_STAR]), (ACTIONS 7, 1, [anon_sym_SLASH_SLASH_SLASH]), (ACTIONS 9, 1,
       [sym__block_comment]), (ACTIONS 11, 1, [sym__documentation_block_comment]), (ACTIONS 17,
       1, [anon_sym_LPAREN]), (ACTIONS 33, 1, [sym_void_type]), (ACTIONS 45, 1,
       [anon_sym_Function]), (ACTIONS 143, 1, [anon_sym_AT]), (ACTIONS 3408, 1,
       [sym_identifier]), (ACTIONS 4176, 1, [anon_sym_RBRACE]), (STATE 1308, 1,
       [aux_sym__metadata_repeat1]), (STATE 1361, 1, [sym_annotation]), (STATE 1463, 1,
       [sym__function_builtin_identifier]), (STATE 1530, 1, [sym__type_name]), (STATE 1605, 1,
       [aux_sym__function_type_tails]), (STATE 1704, 1, [sym__function_type_tail]), (STATE 1796,
       1, [sym__type_not_function]), (STATE 1805, 1, [sym_record_type]), (STATE 1848, 1,
       [sym_function_type]), (STATE 1896, 1, [sym__type_not_void_not_function]), (STATE 2043, 1,
       [sym__metadata]), (STATE 3101, 1, [sym_typed_identifier]), (STATE 3254, 1,
       [sym_record_type_named_field]), (STATE 3495, 1, [sym__type]), (STATE 1834, 2,
       [sym_comment, sym_documentation_comment])])]"

lemma small_run_667: "small_run 1833 95069 ts_small_parse_table_667 1835 95229"
  by (simp add: small_simps ts_small_parse_table_667_def)

definition ts_small_parse_table_668 :: "small_group list" where
  "ts_small_parse_table_668 = [
     (95229, 26, [(ACTIONS 3, 1, [anon_sym_SLASH_SLASH]), (ACTIONS 5, 1,
       [anon_sym_SLASH_STAR]), (ACTIONS 7, 1, [anon_sym_SLASH_SLASH_SLASH]), (ACTIONS 9, 1,
       [sym__block_comment]), (ACTIONS 11, 1, [sym__documentation_block_comment]), (ACTIONS 17,
       1, [anon_sym_LPAREN]), (ACTIONS 33, 1, [sym_void_type]), (ACTIONS 45, 1,
       [anon_sym_Function]), (ACTIONS 143, 1, [anon_sym_AT]), (ACTIONS 3408, 1,
       [sym_identifier]), (ACTIONS 4178, 1, [anon_sym_RBRACE]), (STATE 1308, 1,
       [aux_sym__metadata_repeat1]), (STATE 1361, 1, [sym_annotation]), (STATE 1463, 1,
       [sym__function_builtin_identifier]), (STATE 1530, 1, [sym__type_name]), (STATE 1605, 1,
       [aux_sym__function_type_tails]), (STATE 1704, 1, [sym__function_type_tail]), (STATE 1796,
       1, [sym__type_not_function]), (STATE 1805, 1, [sym_record_type]), (STATE 1848, 1,
       [sym_function_type]), (STATE 1896, 1, [sym__type_not_void_not_function]), (STATE 2043, 1,
       [sym__metadata]), (STATE 3101, 1, [sym_typed_identifier]), (STATE 3254, 1,
       [sym_record_type_named_field]), (STATE 3495, 1, [sym__type]), (STATE 1835, 2,
       [sym_comment, sym_documentation_comment])]),
     (95309, 26, [(ACTIONS 3, 1, [anon_sym_SLASH_SLASH]), (ACTIONS 5, 1,
       [anon_sym_SLASH_STAR]), (ACTIONS 7, 1, [anon_sym_SLASH_SLASH_SLASH]), (ACTIONS 9, 1,
       [sym__block_comment]), (ACTIONS 11, 1, [sym__documentation_block_comment]), (ACTIONS 17,
       1, [anon_sym_LPAREN]), (ACTIONS 33, 1, [sym_void_type]), (ACTIONS 45, 1,
       [anon_sym_Function]), (ACTIONS 143, 1, [anon_sym_AT]), (ACTIONS 3408, 1,
       [sym_identifier]), (ACTIONS 4180, 1, [anon_sym_LBRACE]), (ACTIONS 4182, 1,
       [anon_sym_RPAREN]), (STATE 1308, 1, [aux_sym__metadata_repeat1]), (STATE 1361, 1,
       [sym_annotation]), (STATE 1463, 1, [sym__function_builtin_identifier]), (STATE 1530, 1,
       [sym__type_name]), (STATE 1605, 1, [aux_sym__function_type_tails]), (STATE 1704, 1,
       [sym__function_type_tail]), (STATE 1796, 1, [sym__type_not_function]), (STATE 1805, 1,
       [sym_record_type]), (STATE 1848, 1, [sym_function_type]), (STATE 1896, 1,
       [sym__type_not_void_not_function]), (STATE 2088, 1, [sym__metadata]), (STATE 2822, 1,
       [sym__type]), (STATE 2985, 1, [sym_record_type_field]), (STATE 1836, 2, [sym_comment,
       sym_documentation_comment])])]"

lemma small_run_668: "small_run 1835 95229 ts_small_parse_table_668 1837 95389"
  by (simp add: small_simps ts_small_parse_table_668_def)

definition ts_small_parse_table_669 :: "small_group list" where
  "ts_small_parse_table_669 = [
     (95389, 26, [(ACTIONS 3, 1, [anon_sym_SLASH_SLASH]), (ACTIONS 5, 1,
       [anon_sym_SLASH_STAR]), (ACTIONS 7, 1, [anon_sym_SLASH_SLASH_SLASH]), (ACTIONS 9, 1,
       [sym__block_comment]), (ACTIONS 11, 1, [sym__documentation_block_comment]), (ACTIONS 17,
       1, [anon_sym_LPAREN]), (ACTIONS 33, 1, [sym_void_type]), (ACTIONS 45, 1,
       [anon_sym_Function]), (ACTIONS 143, 1, [anon_sym_AT]), (ACTIONS 3408, 1,
       [sym_identifier]), (ACTIONS 4184, 1, [anon_sym_LBRACE]), (ACTIONS 4186, 1,
       [anon_sym_RPAREN]), (STATE 1308, 1, [aux_sym__metadata_repeat1]), (STATE 1361, 1,
       [sym_annotation]), (STATE 1463, 1, [sym__function_builtin_identifier]), (STATE 1530, 1,
       [sym__type_name]), (STATE 1605, 1, [aux_sym__function_type_tails]), (STATE 1704, 1,
       [sym__function_type_tail]), (STATE 1796, 1, [sym__type_not_function]), (STATE 1805, 1,
       [sym_record_type]), (STATE 1848, 1, [sym_function_type]), (STATE 1896, 1,
       [sym__type_not_void_not_function]), (STATE 2088, 1, [sym__metadata]), (STATE 2822, 1,
       [sym__type]), (STATE 3056, 1, [sym_record_type_field]), (STATE 1837, 2, [sym_comment,
       sym_documentation_comment])]),
     (95469, 26, [(ACTIONS 3, 1, [anon_sym_SLASH_SLASH]), (ACTIONS 5, 1,
       [anon_sym_SLASH_STAR]), (ACTIONS 7, 1, [anon_sym_SLASH_SLASH_SLASH]), (ACTIONS 9, 1,
       [sym__block_comment]), (ACTIONS 11, 1, [sym__documentation_block_comment]), (ACTIONS 17,
       1, [anon_sym_LPAREN]), (ACTIONS 33, 1, [sym_void_type]), (ACTIONS 45, 1,
       [anon_sym_Function]), (ACTIONS 143, 1, [anon_sym_AT]), (ACTIONS 3408, 1,
       [sym_identifier]), (ACTIONS 4188, 1, [anon_sym_RBRACE]), (STATE 1308, 1,
       [aux_sym__metadata_repeat1]), (STATE 1361, 1, [sym_annotation]), (STATE 1463, 1,
       [sym__function_builtin_identifier]), (STATE 1530, 1, [sym__type_name]), (STATE 1605, 1,
       [aux_sym__function_type_tails]), (STATE 1704, 1, [sym__function_type_tail]), (STATE 1796,
       1, [sym__type_not_function]), (STATE 1805, 1, [sym_record_type]), (STATE 1848, 1,
       [sym_function_type]), (STATE 1896, 1, [sym__type_not_void_not_function]), (STATE 2043, 1,
       [sym__metadata]), (STATE 3101, 1, [sym_typed_identifier]), (STATE 3254, 1,
       [sym_record_type_named_field]), (STATE 3495, 1, [sym__type]), (STATE 1838, 2,
       [sym_comment, sym_documentation_comment])])]"

lemma small_run_669: "small_run 1837 95389 ts_small_parse_table_669 1839 95549"
  by (simp add: small_simps ts_small_parse_table_669_def)

definition ts_small_parse_table_670 :: "small_group list" where
  "ts_small_parse_table_670 = [
     (95549, 26, [(ACTIONS 3, 1, [anon_sym_SLASH_SLASH]), (ACTIONS 5, 1,
       [anon_sym_SLASH_STAR]), (ACTIONS 7, 1, [anon_sym_SLASH_SLASH_SLASH]), (ACTIONS 9, 1,
       [sym__block_comment]), (ACTIONS 11, 1, [sym__documentation_block_comment]), (ACTIONS 17,
       1, [anon_sym_LPAREN]), (ACTIONS 33, 1, [sym_void_type]), (ACTIONS 45, 1,
       [anon_sym_Function]), (ACTIONS 143, 1, [anon_sym_AT]), (ACTIONS 3408, 1,
       [sym_identifier]), (ACTIONS 4190, 1, [anon_sym_LBRACE]), (ACTIONS 4192, 1,
       [anon_sym_RPAREN]), (STATE 1308, 1, [aux_sym__metadata_repeat1]), (STATE 1361, 1,
       [sym_annotation]), (STATE 1463, 1, [sym__function_builtin_identifier]), (STATE 1530, 1,
       [sym__type_name]), (STATE 1605, 1, [aux_sym__function_type_tails]), (STATE 1704, 1,
       [sym__function_type_tail]), (STATE 1796, 1, [sym__type_not_function]), (STATE 1805, 1,
       [sym_record_type]), (STATE 1848, 1, [sym_function_type]), (STATE 1896, 1,
       [sym__type_not_void_not_function]), (STATE 2088, 1, [sym__metadata]), (STATE 2822, 1,
       [sym__type]), (STATE 2878, 1, [sym_record_type_field]), (STATE 1839, 2, [sym_comment,
       sym_documentation_comment])]),
     (95629, 19, [(ACTIONS 3, 1, [anon_sym_SLASH_SLASH]), (ACTIONS 5, 1,
       [anon_sym_SLASH_STAR]), (ACTIONS 7, 1, [anon_sym_SLASH_SLASH_SLASH]), (ACTIONS 9, 1,
       [sym__block_comment]), (ACTIONS 11, 1, [sym__documentation_block_comment]), (ACTIONS 83,
       1, [anon_sym_DQUOTE]), (ACTIONS 85, 1, [anon_sym_SQUOTE]), (ACTIONS 87, 1,
       [anon_sym_DQUOTE_DQUOTE_DQUOTE]), (ACTIONS 89, 1, [anon_sym_SQUOTE_SQUOTE_SQUOTE]),
       (ACTIONS 91, 1, [anon_sym_r_DQUOTE]), (ACTIONS 93, 1, [anon_sym_r_SQUOTE]), (ACTIONS 95,
       1, [anon_sym_r_DQUOTE_DQUOTE_DQUOTE]), (ACTIONS 97, 1, [anon_sym_r_SQUOTE_SQUOTE_SQUOTE]),
       (STATE 474, 1, [aux_sym_string_literal_repeat1]), (STATE 2457, 1, [sym_string_literal]),
       (STATE 2507, 1, [sym_uri]), (STATE 2514, 1, [sym_configurable_uri]), (STATE 1840, 2,
       [sym_comment, sym_documentation_comment]), (STATE 627, 8,
       [sym__string_literal_double_quotes, sym__string_literal_single_quotes,
       sym__string_literal_double_quotes_multiple, sym__string_literal_single_quotes_multiple,
       sym__raw_string_literal_double_quotes, sym__raw_string_literal_single_quotes,
       sym__raw_string_literal_double_quotes_multiple,
       sym__raw_string_literal_single_quotes_multiple])])]"

lemma small_run_670: "small_run 1839 95549 ts_small_parse_table_670 1841 95695"
  by (simp add: small_simps ts_small_parse_table_670_def)

definition ts_small_parse_table_671 :: "small_group list" where
  "ts_small_parse_table_671 = [
     (95695, 26, [(ACTIONS 3, 1, [anon_sym_SLASH_SLASH]), (ACTIONS 5, 1,
       [anon_sym_SLASH_STAR]), (ACTIONS 7, 1, [anon_sym_SLASH_SLASH_SLASH]), (ACTIONS 9, 1,
       [sym__block_comment]), (ACTIONS 11, 1, [sym__documentation_block_comment]), (ACTIONS 17,
       1, [anon_sym_LPAREN]), (ACTIONS 33, 1, [sym_void_type]), (ACTIONS 45, 1,
       [anon_sym_Function]), (ACTIONS 143, 1, [anon_sym_AT]), (ACTIONS 3408, 1,
       [sym_identifier]), (ACTIONS 4194, 1, [anon_sym_RBRACE]), (STATE 1308, 1,
       [aux_sym__metadata_repeat1]), (STATE 1361, 1, [sym_annotation]), (STATE 1463, 1,
       [sym__function_builtin_identifier]), (STATE 1530, 1, [sym__type_name]), (STATE 1605, 1,
       [aux_sym__function_type_tails]), (STATE 1704, 1, [sym__function_type_tail]), (STATE 1796,
       1, [sym__type_not_function]), (STATE 1805, 1, [sym_record_type]), (STATE 1848, 1,
       [sym_function_type]), (STATE 1896, 1, [sym__type_not_void_not_function]), (STATE 2043, 1,
       [sym__metadata]), (STATE 3101, 1, [sym_typed_identifier]), (STATE 3254, 1,
       [sym_record_type_named_field]), (STATE 3495, 1, [sym__type]), (STATE 1841, 2,
       [sym_comment, sym_documentation_comment])]),
     (95775, 26, [(ACTIONS 3, 1, [anon_sym_SLASH_SLASH]), (ACTIONS 5, 1,
       [anon_sym_SLASH_STAR]), (ACTIONS 7, 1, [anon_sym_SLASH_SLASH_SLASH]), (ACTIONS 9, 1,
       [sym__block_comment]), (ACTIONS 11, 1, [sym__documentation_block_comment]), (ACTIONS 17,
       1, [anon_sym_LPAREN]), (ACTIONS 33, 1, [sym_void_type]), (ACTIONS 45, 1,
       [anon_sym_Function]), (ACTIONS 143, 1, [anon_sym_AT]), (ACTIONS 3408, 1,
       [sym_identifier]), (ACTIONS 4196, 1, [anon_sym_RBRACE]), (STATE 1308, 1,
       [aux_sym__metadata_repeat1]), (STATE 1361, 1, [sym_annotation]), (STATE 1463, 1,
       [sym__function_builtin_identifier]), (STATE 1530, 1, [sym__type_name]), (STATE 1605, 1,
       [aux_sym__function_type_tails]), (STATE 1704, 1, [sym__function_type_tail]), (STATE 1796,
       1, [sym__type_not_function]), (STATE 1805, 1, [sym_record_type]), (STATE 1848, 1,
       [sym_function_type]), (STATE 1896, 1, [sym__type_not_void_not_function]), (STATE 2043, 1,
       [sym__metadata]), (STATE 3101, 1, [sym_typed_identifier]), (STATE 3254, 1,
       [sym_record_type_named_field]), (STATE 3495, 1, [sym__type]), (STATE 1842, 2,
       [sym_comment, sym_documentation_comment])])]"

lemma small_run_671: "small_run 1841 95695 ts_small_parse_table_671 1843 95855"
  by (simp add: small_simps ts_small_parse_table_671_def)

definition ts_small_parse_table_672 :: "small_group list" where
  "ts_small_parse_table_672 = [
     (95855, 26, [(ACTIONS 3, 1, [anon_sym_SLASH_SLASH]), (ACTIONS 5, 1,
       [anon_sym_SLASH_STAR]), (ACTIONS 7, 1, [anon_sym_SLASH_SLASH_SLASH]), (ACTIONS 9, 1,
       [sym__block_comment]), (ACTIONS 11, 1, [sym__documentation_block_comment]), (ACTIONS 17,
       1, [anon_sym_LPAREN]), (ACTIONS 33, 1, [sym_void_type]), (ACTIONS 45, 1,
       [anon_sym_Function]), (ACTIONS 143, 1, [anon_sym_AT]), (ACTIONS 3408, 1,
       [sym_identifier]), (ACTIONS 4198, 1, [anon_sym_RBRACE]), (STATE 1308, 1,
       [aux_sym__metadata_repeat1]), (STATE 1361, 1, [sym_annotation]), (STATE 1463, 1,
       [sym__function_builtin_identifier]), (STATE 1530, 1, [sym__type_name]), (STATE 1605, 1,
       [aux_sym__function_type_tails]), (STATE 1704, 1, [sym__function_type_tail]), (STATE 1796,
       1, [sym__type_not_function]), (STATE 1805, 1, [sym_record_type]), (STATE 1848, 1,
       [sym_function_type]), (STATE 1896, 1, [sym__type_not_void_not_function]), (STATE 2043, 1,
       [sym__metadata]), (STATE 3101, 1, [sym_typed_identifier]), (STATE 3254, 1,
       [sym_record_type_named_field]), (STATE 3495, 1, [sym__type]), (STATE 1843, 2,
       [sym_comment, sym_documentation_comment])]),
     (95935, 26, [(ACTIONS 3, 1, [anon_sym_SLASH_SLASH]), (ACTIONS 5, 1,
       [anon_sym_SLASH_STAR]), (ACTIONS 7, 1, [anon_sym_SLASH_SLASH_SLASH]), (ACTIONS 9, 1,
       [sym__block_comment]), (ACTIONS 11, 1, [sym__documentation_block_comment]), (ACTIONS 17,
       1, [anon_sym_LPAREN]), (ACTIONS 33, 1, [sym_void_type]), (ACTIONS 45, 1,
       [anon_sym_Function]), (ACTIONS 143, 1, [anon_sym_AT]), (ACTIONS 3408, 1,
       [sym_identifier]), (ACTIONS 4200, 1, [anon_sym_RBRACE]), (STATE 1308, 1,
       [aux_sym__metadata_repeat1]), (STATE 1361, 1, [sym_annotation]), (STATE 1463, 1,
       [sym__function_builtin_identifier]), (STATE 1530, 1, [sym__type_name]), (STATE 1605, 1,
       [aux_sym__function_type_tails]), (STATE 1704, 1, [sym__function_type_tail]), (STATE 1796,
       1, [sym__type_not_function]), (STATE 1805, 1, [sym_record_type]), (STATE 1848, 1,
       [sym_function_type]), (STATE 1896, 1, [sym__type_not_void_not_function]), (STATE 2043, 1,
       [sym__metadata]), (STATE 3101, 1, [sym_typed_identifier]), (STATE 3254, 1,
       [sym_record_type_named_field]), (STATE 3495, 1, [sym__type]), (STATE 1844, 2,
       [sym_comment, sym_documentation_comment])])]"

lemma small_run_672: "small_run 1843 95855 ts_small_parse_table_672 1845 96015"
  by (simp add: small_simps ts_small_parse_table_672_def)

definition ts_small_parse_table_673 :: "small_group list" where
  "ts_small_parse_table_673 = [
     (96015, 26, [(ACTIONS 3, 1, [anon_sym_SLASH_SLASH]), (ACTIONS 5, 1,
       [anon_sym_SLASH_STAR]), (ACTIONS 7, 1, [anon_sym_SLASH_SLASH_SLASH]), (ACTIONS 9, 1,
       [sym__block_comment]), (ACTIONS 11, 1, [sym__documentation_block_comment]), (ACTIONS 17,
       1, [anon_sym_LPAREN]), (ACTIONS 33, 1, [sym_void_type]), (ACTIONS 45, 1,
       [anon_sym_Function]), (ACTIONS 143, 1, [anon_sym_AT]), (ACTIONS 3408, 1,
       [sym_identifier]), (ACTIONS 4202, 1, [anon_sym_RBRACE]), (STATE 1308, 1,
       [aux_sym__metadata_repeat1]), (STATE 1361, 1, [sym_annotation]), (STATE 1463, 1,
       [sym__function_builtin_identifier]), (STATE 1530, 1, [sym__type_name]), (STATE 1605, 1,
       [aux_sym__function_type_tails]), (STATE 1704, 1, [sym__function_type_tail]), (STATE 1796,
       1, [sym__type_not_function]), (STATE 1805, 1, [sym_record_type]), (STATE 1848, 1,
       [sym_function_type]), (STATE 1896, 1, [sym__type_not_void_not_function]), (STATE 2043, 1,
       [sym__metadata]), (STATE 3101, 1, [sym_typed_identifier]), (STATE 3254, 1,
       [sym_record_type_named_field]), (STATE 3495, 1, [sym__type]), (STATE 1845, 2,
       [sym_comment, sym_documentation_comment])]),
     (96095, 26, [(ACTIONS 3, 1, [anon_sym_SLASH_SLASH]), (ACTIONS 5, 1,
       [anon_sym_SLASH_STAR]), (ACTIONS 7, 1, [anon_sym_SLASH_SLASH_SLASH]), (ACTIONS 9, 1,
       [sym__block_comment]), (ACTIONS 11, 1, [sym__documentation_block_comment]), (ACTIONS 17,
       1, [anon_sym_LPAREN]), (ACTIONS 33, 1, [sym_void_type]), (ACTIONS 45, 1,
       [anon_sym_Function]), (ACTIONS 143, 1, [anon_sym_AT]), (ACTIONS 3408, 1,
       [sym_identifier]), (ACTIONS 4204, 1, [anon_sym_LBRACE]), (ACTIONS 4206, 1,
       [anon_sym_RPAREN]), (STATE 1308, 1, [aux_sym__metadata_repeat1]), (STATE 1361, 1,
       [sym_annotation]), (STATE 1463, 1, [sym__function_builtin_identifier]), (STATE 1530, 1,
       [sym__type_name]), (STATE 1605, 1, [aux_sym__function_type_tails]), (STATE 1704, 1,
       [sym__function_type_tail]), (STATE 1796, 1, [sym__type_not_function]), (STATE 1805, 1,
       [sym_record_type]), (STATE 1848, 1, [sym_function_type]), (STATE 1896, 1,
       [sym__type_not_void_not_function]), (STATE 2088, 1, [sym__metadata]), (STATE 2822, 1,
       [sym__type]), (STATE 3056, 1, [sym_record_type_field]), (STATE 1846, 2, [sym_comment,
       sym_documentation_comment])])]"

lemma small_run_673: "small_run 1845 96015 ts_small_parse_table_673 1847 96175"
  by (simp add: small_simps ts_small_parse_table_673_def)

definition ts_small_parse_table_674 :: "small_group list" where
  "ts_small_parse_table_674 = [
     (96175, 26, [(ACTIONS 3, 1, [anon_sym_SLASH_SLASH]), (ACTIONS 5, 1,
       [anon_sym_SLASH_STAR]), (ACTIONS 7, 1, [anon_sym_SLASH_SLASH_SLASH]), (ACTIONS 9, 1,
       [sym__block_comment]), (ACTIONS 11, 1, [sym__documentation_block_comment]), (ACTIONS 17,
       1, [anon_sym_LPAREN]), (ACTIONS 33, 1, [sym_void_type]), (ACTIONS 45, 1,
       [anon_sym_Function]), (ACTIONS 143, 1, [anon_sym_AT]), (ACTIONS 3408, 1,
       [sym_identifier]), (ACTIONS 4208, 1, [anon_sym_RBRACE]), (STATE 1308, 1,
       [aux_sym__metadata_repeat1]), (STATE 1361, 1, [sym_annotation]), (STATE 1463, 1,
       [sym__function_builtin_identifier]), (STATE 1530, 1, [sym__type_name]), (STATE 1605, 1,
       [aux_sym__function_type_tails]), (STATE 1704, 1, [sym__function_type_tail]), (STATE 1796,
       1, [sym__type_not_function]), (STATE 1805, 1, [sym_record_type]), (STATE 1848, 1,
       [sym_function_type]), (STATE 1896, 1, [sym__type_not_void_not_function]), (STATE 2043, 1,
       [sym__metadata]), (STATE 3101, 1, [sym_typed_identifier]), (STATE 3254, 1,
       [sym_record_type_named_field]), (STATE 3495, 1, [sym__type]), (STATE 1847, 2,
       [sym_comment, sym_documentation_comment])]),
     (96255, 10, [(ACTIONS 3, 1, [anon_sym_SLASH_SLASH]), (ACTIONS 5, 1,
       [anon_sym_SLASH_STAR]), (ACTIONS 7, 1, [anon_sym_SLASH_SLASH_SLASH]), (ACTIONS 9, 1,
       [sym__block_comment]), (ACTIONS 11, 1, [sym__documentation_block_comment]), (ACTIONS 2154,
       1, [anon_sym_QMARK]), (STATE 1919, 1, [sym_nullable_type]), (STATE 1848, 2, [sym_comment,
       sym_documentation_comment]), (ACTIONS 4089, 7, [anon_sym_when, anon_sym_get,
       anon_sym_operator, anon_sym_set, anon_sym_this, anon_sym_super, sym_identifier]), (ACTIONS
       4091, 11, [anon_sym_LBRACE, anon_sym_RBRACE, anon_sym_COMMA, anon_sym_RBRACK,
       anon_sym_COLON, anon_sym_RPAREN, anon_sym_GT, anon_sym_SEMI, anon_sym_EQ_GT,
       anon_sym_AMP_AMP, anon_sym_PIPE_PIPE])]),
     (96303, 26, [(ACTIONS 3, 1, [anon_sym_SLASH_SLASH]), (ACTIONS 5, 1,
       [anon_sym_SLASH_STAR]), (ACTIONS 7, 1, [anon_sym_SLASH_SLASH_SLASH]), (ACTIONS 9, 1,
       [sym__block_comment]), (ACTIONS 11, 1, [sym__documentation_block_comment]), (ACTIONS 17,
       1, [anon_sym_LPAREN]), (ACTIONS 33, 1, [sym_void_type]), (ACTIONS 45, 1,
       [anon_sym_Function]), (ACTIONS 143, 1, [anon_sym_AT]), (ACTIONS 3408, 1,
       [sym_identifier]), (ACTIONS 4210, 1, [anon_sym_LBRACE]), (ACTIONS 4212, 1,
       [anon_sym_RPAREN]), (STATE 1308, 1, [aux_sym__metadata_repeat1]), (STATE 1361, 1,
       [sym_annotation]), (STATE 1463, 1, [sym__function_builtin_identifier]), (STATE 1530, 1,
       [sym__type_name]), (STATE 1605, 1, [aux_sym__function_type_tails]), (STATE 1704, 1,
       [sym__function_type_tail]), (STATE 1796, 1, [sym__type_not_function]), (STATE 1805, 1,
       [sym_record_type]), (STATE 1848, 1, [sym_function_type]), (STATE 1896, 1,
       [sym__type_not_void_not_function]), (STATE 2088, 1, [sym__metadata]), (STATE 2822, 1,
       [sym__type]), (STATE 3056, 1, [sym_record_type_field]), (STATE 1849, 2, [sym_comment,
       sym_documentation_comment])])]"

lemma small_run_674: "small_run 1847 96175 ts_small_parse_table_674 1850 96383"
  by (simp add: small_simps ts_small_parse_table_674_def)

definition ts_small_parse_table_675 :: "small_group list" where
  "ts_small_parse_table_675 = [
     (96383, 8, [(ACTIONS 3, 1, [anon_sym_SLASH_SLASH]), (ACTIONS 5, 1, [anon_sym_SLASH_STAR]),
       (ACTIONS 7, 1, [anon_sym_SLASH_SLASH_SLASH]), (ACTIONS 9, 1, [sym__block_comment]),
       (ACTIONS 11, 1, [sym__documentation_block_comment]), (STATE 1850, 2, [sym_comment,
       sym_documentation_comment]), (ACTIONS 1921, 4, [anon_sym_DQUOTE, anon_sym_SQUOTE,
       anon_sym_r_DQUOTE, anon_sym_r_SQUOTE]), (ACTIONS 1923, 16, [anon_sym_DQUOTE_DQUOTE_DQUOTE,
       anon_sym_SQUOTE_SQUOTE_SQUOTE, anon_sym_r_DQUOTE_DQUOTE_DQUOTE,
       anon_sym_r_SQUOTE_SQUOTE_SQUOTE, anon_sym_RBRACE, anon_sym_COMMA, anon_sym_RBRACK,
       anon_sym_COLON, anon_sym_RPAREN, anon_sym_QMARK, anon_sym_BANG, anon_sym_as,
       anon_sym_EQ_GT, anon_sym_when, anon_sym_AMP_AMP, anon_sym_PIPE_PIPE])]),
     (96427, 26, [(ACTIONS 3, 1, [anon_sym_SLASH_SLASH]), (ACTIONS 5, 1,
       [anon_sym_SLASH_STAR]), (ACTIONS 7, 1, [anon_sym_SLASH_SLASH_SLASH]), (ACTIONS 9, 1,
       [sym__block_comment]), (ACTIONS 11, 1, [sym__documentation_block_comment]), (ACTIONS 17,
       1, [anon_sym_LPAREN]), (ACTIONS 33, 1, [sym_void_type]), (ACTIONS 45, 1,
       [anon_sym_Function]), (ACTIONS 143, 1, [anon_sym_AT]), (ACTIONS 3408, 1,
       [sym_identifier]), (ACTIONS 4214, 1, [anon_sym_LBRACE]), (ACTIONS 4216, 1,
       [anon_sym_RPAREN]), (STATE 1308, 1, [aux_sym__metadata_repeat1]), (STATE 1361, 1,
       [sym_annotation]), (STATE 1463, 1, [sym__function_builtin_identifier]), (STATE 1530, 1,
       [sym__type_name]), (STATE 1605, 1, [aux_sym__function_type_tails]), (STATE 1704, 1,
       [sym__function_type_tail]), (STATE 1796, 1, [sym__type_not_function]), (STATE 1805, 1,
       [sym_record_type]), (STATE 1848, 1, [sym_function_type]), (STATE 1896, 1,
       [sym__type_not_void_not_function]), (STATE 2088, 1, [sym__metadata]), (STATE 2822, 1,
       [sym__type]), (STATE 3056, 1, [sym_record_type_field]), (STATE 1851, 2, [sym_comment,
       sym_documentation_comment])]),
     (96507, 26, [(ACTIONS 3, 1, [anon_sym_SLASH_SLASH]), (ACTIONS 5, 1,
       [anon_sym_SLASH_STAR]), (ACTIONS 7, 1, [anon_sym_SLASH_SLASH_SLASH]), (ACTIONS 9, 1,
       [sym__block_comment]), (ACTIONS 11, 1, [sym__documentation_block_comment]), (ACTIONS 17,
       1, [anon_sym_LPAREN]), (ACTIONS 33, 1, [sym_void_type]), (ACTIONS 45, 1,
       [anon_sym_Function]), (ACTIONS 143, 1, [anon_sym_AT]), (ACTIONS 3408, 1,
       [sym_identifier]), (ACTIONS 4218, 1, [anon_sym_LBRACE]), (ACTIONS 4220, 1,
       [anon_sym_RPAREN]), (STATE 1308, 1, [aux_sym__metadata_repeat1]), (STATE 1361, 1,
       [sym_annotation]), (STATE 1463, 1, [sym__function_builtin_identifier]), (STATE 1530, 1,
       [sym__type_name]), (STATE 1605, 1, [aux_sym__function_type_tails]), (STATE 1704, 1,
       [sym__function_type_tail]), (STATE 1796, 1, [sym__type_not_function]), (STATE 1805, 1,
       [sym_record_type]), (STATE 1848, 1, [sym_function_type]), (STATE 1896, 1,
       [sym__type_not_void_not_function]), (STATE 2088, 1, [sym__metadata]), (STATE 2822, 1,
       [sym__type]), (STATE 3056, 1, [sym_record_type_field]), (STATE 1852, 2, [sym_comment,
       sym_documentation_comment])])]"

lemma small_run_675: "small_run 1850 96383 ts_small_parse_table_675 1853 96587"
  by (simp add: small_simps ts_small_parse_table_675_def)

definition ts_small_parse_table_676 :: "small_group list" where
  "ts_small_parse_table_676 = [
     (96587, 8, [(ACTIONS 3, 1, [anon_sym_SLASH_SLASH]), (ACTIONS 5, 1, [anon_sym_SLASH_STAR]),
       (ACTIONS 7, 1, [anon_sym_SLASH_SLASH_SLASH]), (ACTIONS 9, 1, [sym__block_comment]),
       (ACTIONS 11, 1, [sym__documentation_block_comment]), (STATE 1853, 2, [sym_comment,
       sym_documentation_comment]), (ACTIONS 1925, 4, [anon_sym_DQUOTE, anon_sym_SQUOTE,
       anon_sym_r_DQUOTE, anon_sym_r_SQUOTE]), (ACTIONS 1927, 16, [anon_sym_DQUOTE_DQUOTE_DQUOTE,
       anon_sym_SQUOTE_SQUOTE_SQUOTE, anon_sym_r_DQUOTE_DQUOTE_DQUOTE,
       anon_sym_r_SQUOTE_SQUOTE_SQUOTE, anon_sym_RBRACE, anon_sym_COMMA, anon_sym_RBRACK,
       anon_sym_COLON, anon_sym_RPAREN, anon_sym_QMARK, anon_sym_BANG, anon_sym_as,
       anon_sym_EQ_GT, anon_sym_when, anon_sym_AMP_AMP, anon_sym_PIPE_PIPE])]),
     (96631, 8, [(ACTIONS 3, 1, [anon_sym_SLASH_SLASH]), (ACTIONS 5, 1, [anon_sym_SLASH_STAR]),
       (ACTIONS 7, 1, [anon_sym_SLASH_SLASH_SLASH]), (ACTIONS 9, 1, [sym__block_comment]),
       (ACTIONS 11, 1, [sym__documentation_block_comment]), (STATE 1854, 2, [sym_comment,
       sym_documentation_comment]), (ACTIONS 1961, 4, [anon_sym_DQUOTE, anon_sym_SQUOTE,
       anon_sym_r_DQUOTE, anon_sym_r_SQUOTE]), (ACTIONS 1963, 16, [anon_sym_DQUOTE_DQUOTE_DQUOTE,
       anon_sym_SQUOTE_SQUOTE_SQUOTE, anon_sym_r_DQUOTE_DQUOTE_DQUOTE,
       anon_sym_r_SQUOTE_SQUOTE_SQUOTE, anon_sym_RBRACE, anon_sym_COMMA, anon_sym_RBRACK,
       anon_sym_COLON, anon_sym_RPAREN, anon_sym_QMARK, anon_sym_BANG, anon_sym_as,
       anon_sym_EQ_GT, anon_sym_when, anon_sym_AMP_AMP, anon_sym_PIPE_PIPE])]),
     (96675, 26, [(ACTIONS 3, 1, [anon_sym_SLASH_SLASH]), (ACTIONS 5, 1,
       [anon_sym_SLASH_STAR]), (ACTIONS 7, 1, [anon_sym_SLASH_SLASH_SLASH]), (ACTIONS 9, 1,
       [sym__block_comment]), (ACTIONS 11, 1, [sym__documentation_block_comment]), (ACTIONS 17,
       1, [anon_sym_LPAREN]), (ACTIONS 33, 1, [sym_void_type]), (ACTIONS 45, 1,
       [anon_sym_Function]), (ACTIONS 143, 1, [anon_sym_AT]), (ACTIONS 3408, 1,
       [sym_identifier]), (ACTIONS 4222, 1, [anon_sym_RBRACE]), (STATE 1308, 1,
       [aux_sym__metadata_repeat1]), (STATE 1361, 1, [sym_annotation]), (STATE 1463, 1,
       [sym__function_builtin_identifier]), (STATE 1530, 1, [sym__type_name]), (STATE 1605, 1,
       [aux_sym__function_type_tails]), (STATE 1704, 1, [sym__function_type_tail]), (STATE 1796,
       1, [sym__type_not_function]), (STATE 1805, 1, [sym_record_type]), (STATE 1848, 1,
       [sym_function_type]), (STATE 1896, 1, [sym__type_not_void_not_function]), (STATE 2043, 1,
       [sym__metadata]), (STATE 3101, 1, [sym_typed_identifier]), (STATE 3254, 1,
       [sym_record_type_named_field]), (STATE 3495, 1, [sym__type]), (STATE 1855, 2,
       [sym_comment, sym_documentation_comment])])]"

lemma small_run_676: "small_run 1853 96587 ts_small_parse_table_676 1856 96755"
  by (simp add: small_simps ts_small_parse_table_676_def)

definition ts_small_parse_table_677 :: "small_group list" where
  "ts_small_parse_table_677 = [
     (96755, 26, [(ACTIONS 3, 1, [anon_sym_SLASH_SLASH]), (ACTIONS 5, 1,
       [anon_sym_SLASH_STAR]), (ACTIONS 7, 1, [anon_sym_SLASH_SLASH_SLASH]), (ACTIONS 9, 1,
       [sym__block_comment]), (ACTIONS 11, 1, [sym__documentation_block_comment]), (ACTIONS 17,
       1, [anon_sym_LPAREN]), (ACTIONS 33, 1, [sym_void_type]), (ACTIONS 45, 1,
       [anon_sym_Function]), (ACTIONS 143, 1, [anon_sym_AT]), (ACTIONS 3408, 1,
       [sym_identifier]), (ACTIONS 4224, 1, [anon_sym_LBRACE]), (ACTIONS 4226, 1,
       [anon_sym_RPAREN]), (STATE 1308, 1, [aux_sym__metadata_repeat1]), (STATE 1361, 1,
       [sym_annotation]), (STATE 1463, 1, [sym__function_builtin_identifier]), (STATE 1530, 1,
       [sym__type_name]), (STATE 1605, 1, [aux_sym__function_type_tails]), (STATE 1704, 1,
       [sym__function_type_tail]), (STATE 1796, 1, [sym__type_not_function]), (STATE 1805, 1,
       [sym_record_type]), (STATE 1848, 1, [sym_function_type]), (STATE 1896, 1,
       [sym__type_not_void_not_function]), (STATE 2088, 1, [sym__metadata]), (STATE 2708, 1,
       [sym_record_type_field]), (STATE 2822, 1, [sym__type]), (STATE 1856, 2, [sym_comment,
       sym_documentation_comment])]),
     (96835, 26, [(ACTIONS 3, 1, [anon_sym_SLASH_SLASH]), (ACTIONS 5, 1,
       [anon_sym_SLASH_STAR]), (ACTIONS 7, 1, [anon_sym_SLASH_SLASH_SLASH]), (ACTIONS 9, 1,
       [sym__block_comment]), (ACTIONS 11, 1, [sym__documentation_block_comment]), (ACTIONS 17,
       1, [anon_sym_LPAREN]), (ACTIONS 33, 1, [sym_void_type]), (ACTIONS 45, 1,
       [anon_sym_Function]), (ACTIONS 143, 1, [anon_sym_AT]), (ACTIONS 3408, 1,
       [sym_identifier]), (ACTIONS 4228, 1, [anon_sym_RBRACE]), (STATE 1308, 1,
       [aux_sym__metadata_repeat1]), (STATE 1361, 1, [sym_annotation]), (STATE 1463, 1,
       [sym__function_builtin_identifier]), (STATE 1530, 1, [sym__type_name]), (STATE 1605, 1,
       [aux_sym__function_type_tails]), (STATE 1704, 1, [sym__function_type_tail]), (STATE 1796,
       1, [sym__type_not_function]), (STATE 1805, 1, [sym_record_type]), (STATE 1848, 1,
       [sym_function_type]), (STATE 1896, 1, [sym__type_not_void_not_function]), (STATE 2043, 1,
       [sym__metadata]), (STATE 3101, 1, [sym_typed_identifier]), (STATE 3254, 1,
       [sym_record_type_named_field]), (STATE 3495, 1, [sym__type]), (STATE 1857, 2,
       [sym_comment, sym_documentation_comment])])]"

lemma small_run_677: "small_run 1856 96755 ts_small_parse_table_677 1858 96915"
  by (simp add: small_simps ts_small_parse_table_677_def)

definition ts_small_parse_table_678 :: "small_group list" where
  "ts_small_parse_table_678 = [
     (96915, 26, [(ACTIONS 3, 1, [anon_sym_SLASH_SLASH]), (ACTIONS 5, 1,
       [anon_sym_SLASH_STAR]), (ACTIONS 7, 1, [anon_sym_SLASH_SLASH_SLASH]), (ACTIONS 9, 1,
       [sym__block_comment]), (ACTIONS 11, 1, [sym__documentation_block_comment]), (ACTIONS 17,
       1, [anon_sym_LPAREN]), (ACTIONS 33, 1, [sym_void_type]), (ACTIONS 45, 1,
       [anon_sym_Function]), (ACTIONS 143, 1, [anon_sym_AT]), (ACTIONS 3408, 1,
       [sym_identifier]), (ACTIONS 4230, 1, [anon_sym_RBRACE]), (STATE 1308, 1,
       [aux_sym__metadata_repeat1]), (STATE 1361, 1, [sym_annotation]), (STATE 1463, 1,
       [sym__function_builtin_identifier]), (STATE 1530, 1, [sym__type_name]), (STATE 1605, 1,
       [aux_sym__function_type_tails]), (STATE 1704, 1, [sym__function_type_tail]), (STATE 1796,
       1, [sym__type_not_function]), (STATE 1805, 1, [sym_record_type]), (STATE 1848, 1,
       [sym_function_type]), (STATE 1896, 1, [sym__type_not_void_not_function]), (STATE 2043, 1,
       [sym__metadata]), (STATE 3101, 1, [sym_typed_identifier]), (STATE 3254, 1,
       [sym_record_type_named_field]), (STATE 3495, 1, [sym__type]), (STATE 1858, 2,
       [sym_comment, sym_documentation_comment])]),
     (96995, 26, [(ACTIONS 3, 1, [anon_sym_SLASH_SLASH]), (ACTIONS 5, 1,
       [anon_sym_SLASH_STAR]), (ACTIONS 7, 1, [anon_sym_SLASH_SLASH_SLASH]), (ACTIONS 9, 1,
       [sym__block_comment]), (ACTIONS 11, 1, [sym__documentation_block_comment]), (ACTIONS 17,
       1, [anon_sym_LPAREN]), (ACTIONS 33, 1, [sym_void_type]), (ACTIONS 45, 1,
       [anon_sym_Function]), (ACTIONS 143, 1, [anon_sym_AT]), (ACTIONS 3408, 1,
       [sym_identifier]), (ACTIONS 4232, 1, [anon_sym_RBRACE]), (STATE 1308, 1,
       [aux_sym__metadata_repeat1]), (STATE 1361, 1, [sym_annotation]), (STATE 1463, 1,
       [sym__function_builtin_identifier]), (STATE 1530, 1, [sym__type_name]), (STATE 1605, 1,
       [aux_sym__function_type_tails]), (STATE 1704, 1, [sym__function_type_tail]), (STATE 1796,
       1, [sym__type_not_function]), (STATE 1805, 1, [sym_record_type]), (STATE 1848, 1,
       [sym_function_type]), (STATE 1896, 1, [sym__type_not_void_not_function]), (STATE 2043, 1,
       [sym__metadata]), (STATE 3101, 1, [sym_typed_identifier]), (STATE 3254, 1,
       [sym_record_type_named_field]), (STATE 3495, 1, [sym__type]), (STATE 1859, 2,
       [sym_comment, sym_documentation_comment])]),
     (97075, 8, [(ACTIONS 3, 1, [anon_sym_SLASH_SLASH]), (ACTIONS 5, 1, [anon_sym_SLASH_STAR]),
       (ACTIONS 7, 1, [anon_sym_SLASH_SLASH_SLASH]), (ACTIONS 9, 1, [sym__block_comment]),
       (ACTIONS 11, 1, [sym__documentation_block_comment]), (STATE 1860, 2, [sym_comment,
       sym_documentation_comment]), (ACTIONS 1929, 4, [anon_sym_DQUOTE, anon_sym_SQUOTE,
       anon_sym_r_DQUOTE, anon_sym_r_SQUOTE]), (ACTIONS 1931, 16, [anon_sym_DQUOTE_DQUOTE_DQUOTE,
       anon_sym_SQUOTE_SQUOTE_SQUOTE, anon_sym_r_DQUOTE_DQUOTE_DQUOTE,
       anon_sym_r_SQUOTE_SQUOTE_SQUOTE, anon_sym_RBRACE, anon_sym_COMMA, anon_sym_RBRACK,
       anon_sym_COLON, anon_sym_RPAREN, anon_sym_QMARK, anon_sym_BANG, anon_sym_as,
       anon_sym_EQ_GT, anon_sym_when, anon_sym_AMP_AMP, anon_sym_PIPE_PIPE])])]"

lemma small_run_678: "small_run 1858 96915 ts_small_parse_table_678 1861 97119"
  by (simp add: small_simps ts_small_parse_table_678_def)

definition ts_small_parse_table_679 :: "small_group list" where
  "ts_small_parse_table_679 = [
     (97119, 26, [(ACTIONS 3, 1, [anon_sym_SLASH_SLASH]), (ACTIONS 5, 1,
       [anon_sym_SLASH_STAR]), (ACTIONS 7, 1, [anon_sym_SLASH_SLASH_SLASH]), (ACTIONS 9, 1,
       [sym__block_comment]), (ACTIONS 11, 1, [sym__documentation_block_comment]), (ACTIONS 17,
       1, [anon_sym_LPAREN]), (ACTIONS 33, 1, [sym_void_type]), (ACTIONS 45, 1,
       [anon_sym_Function]), (ACTIONS 143, 1, [anon_sym_AT]), (ACTIONS 3408, 1,
       [sym_identifier]), (ACTIONS 4234, 1, [anon_sym_RBRACE]), (STATE 1308, 1,
       [aux_sym__metadata_repeat1]), (STATE 1361, 1, [sym_annotation]), (STATE 1463, 1,
       [sym__function_builtin_identifier]), (STATE 1530, 1, [sym__type_name]), (STATE 1605, 1,
       [aux_sym__function_type_tails]), (STATE 1704, 1, [sym__function_type_tail]), (STATE 1796,
       1, [sym__type_not_function]), (STATE 1805, 1, [sym_record_type]), (STATE 1848, 1,
       [sym_function_type]), (STATE 1896, 1, [sym__type_not_void_not_function]), (STATE 2043, 1,
       [sym__metadata]), (STATE 3101, 1, [sym_typed_identifier]), (STATE 3254, 1,
       [sym_record_type_named_field]), (STATE 3495, 1, [sym__type]), (STATE 1861, 2,
       [sym_comment, sym_documentation_comment])]),
     (97199, 26, [(ACTIONS 3, 1, [anon_sym_SLASH_SLASH]), (ACTIONS 5, 1,
       [anon_sym_SLASH_STAR]), (ACTIONS 7, 1, [anon_sym_SLASH_SLASH_SLASH]), (ACTIONS 9, 1,
       [sym__block_comment]), (ACTIONS 11, 1, [sym__documentation_block_comment]), (ACTIONS 17,
       1, [anon_sym_LPAREN]), (ACTIONS 33, 1, [sym_void_type]), (ACTIONS 45, 1,
       [anon_sym_Function]), (ACTIONS 143, 1, [anon_sym_AT]), (ACTIONS 3408, 1,
       [sym_identifier]), (ACTIONS 4236, 1, [anon_sym_LBRACE]), (ACTIONS 4238, 1,
       [anon_sym_RPAREN]), (STATE 1308, 1, [aux_sym__metadata_repeat1]), (STATE 1361, 1,
       [sym_annotation]), (STATE 1463, 1, [sym__function_builtin_identifier]), (STATE 1530, 1,
       [sym__type_name]), (STATE 1605, 1, [aux_sym__function_type_tails]), (STATE 1704, 1,
       [sym__function_type_tail]), (STATE 1796, 1, [sym__type_not_function]), (STATE 1805, 1,
       [sym_record_type]), (STATE 1848, 1, [sym_function_type]), (STATE 1896, 1,
       [sym__type_not_void_not_function]), (STATE 2088, 1, [sym__metadata]), (STATE 2822, 1,
       [sym__type]), (STATE 3056, 1, [sym_record_type_field]), (STATE 1862, 2, [sym_comment,
       sym_documentation_comment])])]"

lemma small_run_679: "small_run 1861 97119 ts_small_parse_table_679 1863 97279"
  by (simp add: small_simps ts_small_parse_table_679_def)

definition ts_small_parse_table_680 :: "small_group list" where
  "ts_small_parse_table_680 = [
     (97279, 26, [(ACTIONS 3, 1, [anon_sym_SLASH_SLASH]), (ACTIONS 5, 1,
       [anon_sym_SLASH_STAR]), (ACTIONS 7, 1, [anon_sym_SLASH_SLASH_SLASH]), (ACTIONS 9, 1,
       [sym__block_comment]), (ACTIONS 11, 1, [sym__documentation_block_comment]), (ACTIONS 17,
       1, [anon_sym_LPAREN]), (ACTIONS 33, 1, [sym_void_type]), (ACTIONS 45, 1,
       [anon_sym_Function]), (ACTIONS 143, 1, [anon_sym_AT]), (ACTIONS 3408, 1,
       [sym_identifier]), (ACTIONS 4240, 1, [anon_sym_LBRACE]), (ACTIONS 4242, 1,
       [anon_sym_RPAREN]), (STATE 1308, 1, [aux_sym__metadata_repeat1]), (STATE 1361, 1,
       [sym_annotation]), (STATE 1463, 1, [sym__function_builtin_identifier]), (STATE 1530, 1,
       [sym__type_name]), (STATE 1605, 1, [aux_sym__function_type_tails]), (STATE 1704, 1,
       [sym__function_type_tail]), (STATE 1796, 1, [sym__type_not_function]), (STATE 1805, 1,
       [sym_record_type]), (STATE 1848, 1, [sym_function_type]), (STATE 1896, 1,
       [sym__type_not_void_not_function]), (STATE 2088, 1, [sym__metadata]), (STATE 2794, 1,
       [sym_record_type_field]), (STATE 2822, 1, [sym__type]), (STATE 1863, 2, [sym_comment,
       sym_documentation_comment])]),
     (97359, 26, [(ACTIONS 3, 1, [anon_sym_SLASH_SLASH]), (ACTIONS 5, 1,
       [anon_sym_SLASH_STAR]), (ACTIONS 7, 1, [anon_sym_SLASH_SLASH_SLASH]), (ACTIONS 9, 1,
       [sym__block_comment]), (ACTIONS 11, 1, [sym__documentation_block_comment]), (ACTIONS 17,
       1, [anon_sym_LPAREN]), (ACTIONS 33, 1, [sym_void_type]), (ACTIONS 45, 1,
       [anon_sym_Function]), (ACTIONS 143, 1, [anon_sym_AT]), (ACTIONS 3408, 1,
       [sym_identifier]), (ACTIONS 4244, 1, [anon_sym_RBRACE]), (STATE 1308, 1,
       [aux_sym__metadata_repeat1]), (STATE 1361, 1, [sym_annotation]), (STATE 1463, 1,
       [sym__function_builtin_identifier]), (STATE 1530, 1, [sym__type_name]), (STATE 1605, 1,
       [aux_sym__function_type_tails]), (STATE 1704, 1, [sym__function_type_tail]), (STATE 1796,
       1, [sym__type_not_function]), (STATE 1805, 1, [sym_record_type]), (STATE 1848, 1,
       [sym_function_type]), (STATE 1896, 1, [sym__type_not_void_not_function]), (STATE 2043, 1,
       [sym__metadata]), (STATE 3101, 1, [sym_typed_identifier]), (STATE 3254, 1,
       [sym_record_type_named_field]), (STATE 3495, 1, [sym__type]), (STATE 1864, 2,
       [sym_comment, sym_documentation_comment])])]"

lemma small_run_680: "small_run 1863 97279 ts_small_parse_table_680 1865 97439"
  by (simp add: small_simps ts_small_parse_table_680_def)

definition ts_small_parse_table_681 :: "small_group list" where
  "ts_small_parse_table_681 = [
     (97439, 26, [(ACTIONS 3, 1, [anon_sym_SLASH_SLASH]), (ACTIONS 5, 1,
       [anon_sym_SLASH_STAR]), (ACTIONS 7, 1, [anon_sym_SLASH_SLASH_SLASH]), (ACTIONS 9, 1,
       [sym__block_comment]), (ACTIONS 11, 1, [sym__documentation_block_comment]), (ACTIONS 17,
       1, [anon_sym_LPAREN]), (ACTIONS 33, 1, [sym_void_type]), (ACTIONS 45, 1,
       [anon_sym_Function]), (ACTIONS 143, 1, [anon_sym_AT]), (ACTIONS 3408, 1,
       [sym_identifier]), (ACTIONS 4246, 1, [anon_sym_RBRACE]), (STATE 1308, 1,
       [aux_sym__metadata_repeat1]), (STATE 1361, 1, [sym_annotation]), (STATE 1463, 1,
       [sym__function_builtin_identifier]), (STATE 1530, 1, [sym__type_name]), (STATE 1605, 1,
       [aux_sym__function_type_tails]), (STATE 1704, 1, [sym__function_type_tail]), (STATE 1796,
       1, [sym__type_not_function]), (STATE 1805, 1, [sym_record_type]), (STATE 1848, 1,
       [sym_function_type]), (STATE 1896, 1, [sym__type_not_void_not_function]), (STATE 2043, 1,
       [sym__metadata]), (STATE 3101, 1, [sym_typed_identifier]), (STATE 3254, 1,
       [sym_record_type_named_field]), (STATE 3495, 1, [sym__type]), (STATE 1865, 2,
       [sym_comment, sym_documentation_comment])]),
     (97519, 26, [(ACTIONS 3, 1, [anon_sym_SLASH_SLASH]), (ACTIONS 5, 1,
       [anon_sym_SLASH_STAR]), (ACTIONS 7, 1, [anon_sym_SLASH_SLASH_SLASH]), (ACTIONS 9, 1,
       [sym__block_comment]), (ACTIONS 11, 1, [sym__documentation_block_comment]), (ACTIONS 17,
       1, [anon_sym_LPAREN]), (ACTIONS 33, 1, [sym_void_type]), (ACTIONS 45, 1,
       [anon_sym_Function]), (ACTIONS 143, 1, [anon_sym_AT]), (ACTIONS 3408, 1,
       [sym_identifier]), (ACTIONS 4248, 1, [anon_sym_RBRACK]), (STATE 1308, 1,
       [aux_sym__metadata_repeat1]), (STATE 1361, 1, [sym_annotation]), (STATE 1463, 1,
       [sym__function_builtin_identifier]), (STATE 1530, 1, [sym__type_name]), (STATE 1605, 1,
       [aux_sym__function_type_tails]), (STATE 1704, 1, [sym__function_type_tail]), (STATE 1796,
       1, [sym__type_not_function]), (STATE 1805, 1, [sym_record_type]), (STATE 1848, 1,
       [sym_function_type]), (STATE 1896, 1, [sym__type_not_void_not_function]), (STATE 2033, 1,
       [sym__metadata]), (STATE 2639, 1, [sym__type]), (STATE 2770, 1, [sym_typed_identifier]),
       (STATE 3005, 1, [sym_normal_parameter_type]), (STATE 1866, 2, [sym_comment,
       sym_documentation_comment])])]"

lemma small_run_681: "small_run 1865 97439 ts_small_parse_table_681 1867 97599"
  by (simp add: small_simps ts_small_parse_table_681_def)

definition ts_small_parse_table_682 :: "small_group list" where
  "ts_small_parse_table_682 = [
     (97599, 26, [(ACTIONS 3, 1, [anon_sym_SLASH_SLASH]), (ACTIONS 5, 1,
       [anon_sym_SLASH_STAR]), (ACTIONS 7, 1, [anon_sym_SLASH_SLASH_SLASH]), (ACTIONS 9, 1,
       [sym__block_comment]), (ACTIONS 11, 1, [sym__documentation_block_comment]), (ACTIONS 17,
       1, [anon_sym_LPAREN]), (ACTIONS 33, 1, [sym_void_type]), (ACTIONS 45, 1,
       [anon_sym_Function]), (ACTIONS 143, 1, [anon_sym_AT]), (ACTIONS 3408, 1,
       [sym_identifier]), (ACTIONS 4250, 1, [anon_sym_RBRACE]), (STATE 1308, 1,
       [aux_sym__metadata_repeat1]), (STATE 1361, 1, [sym_annotation]), (STATE 1463, 1,
       [sym__function_builtin_identifier]), (STATE 1530, 1, [sym__type_name]), (STATE 1605, 1,
       [aux_sym__function_type_tails]), (STATE 1704, 1, [sym__function_type_tail]), (STATE 1796,
       1, [sym__type_not_function]), (STATE 1805, 1, [sym_record_type]), (STATE 1848, 1,
       [sym_function_type]), (STATE 1896, 1, [sym__type_not_void_not_function]), (STATE 2043, 1,
       [sym__metadata]), (STATE 3101, 1, [sym_typed_identifier]), (STATE 3254, 1,
       [sym_record_type_named_field]), (STATE 3495, 1, [sym__type]), (STATE 1867, 2,
       [sym_comment, sym_documentation_comment])]),
     (97679, 8, [(ACTIONS 3, 1, [anon_sym_SLASH_SLASH]), (ACTIONS 5, 1, [anon_sym_SLASH_STAR]),
       (ACTIONS 7, 1, [anon_sym_SLASH_SLASH_SLASH]), (ACTIONS 9, 1, [sym__block_comment]),
       (ACTIONS 11, 1, [sym__documentation_block_comment]), (STATE 1868, 2, [sym_comment,
       sym_documentation_comment]), (ACTIONS 1945, 4, [anon_sym_DQUOTE, anon_sym_SQUOTE,
       anon_sym_r_DQUOTE, anon_sym_r_SQUOTE]), (ACTIONS 1947, 16, [anon_sym_DQUOTE_DQUOTE_DQUOTE,
       anon_sym_SQUOTE_SQUOTE_SQUOTE, anon_sym_r_DQUOTE_DQUOTE_DQUOTE,
       anon_sym_r_SQUOTE_SQUOTE_SQUOTE, anon_sym_RBRACE, anon_sym_COMMA, anon_sym_RBRACK,
       anon_sym_COLON, anon_sym_RPAREN, anon_sym_QMARK, anon_sym_BANG, anon_sym_as,
       anon_sym_EQ_GT, anon_sym_when, anon_sym_AMP_AMP, anon_sym_PIPE_PIPE])]),
     (97723, 19, [(ACTIONS 3, 1, [anon_sym_SLASH_SLASH]), (ACTIONS 5, 1,
       [anon_sym_SLASH_STAR]), (ACTIONS 7, 1, [anon_sym_SLASH_SLASH_SLASH]), (ACTIONS 9, 1,
       [sym__block_comment]), (ACTIONS 11, 1, [sym__documentation_block_comment]), (ACTIONS 83,
       1, [anon_sym_DQUOTE]), (ACTIONS 85, 1, [anon_sym_SQUOTE]), (ACTIONS 87, 1,
       [anon_sym_DQUOTE_DQUOTE_DQUOTE]), (ACTIONS 89, 1, [anon_sym_SQUOTE_SQUOTE_SQUOTE]),
       (ACTIONS 91, 1, [anon_sym_r_DQUOTE]), (ACTIONS 93, 1, [anon_sym_r_SQUOTE]), (ACTIONS 95,
       1, [anon_sym_r_DQUOTE_DQUOTE_DQUOTE]), (ACTIONS 97, 1, [anon_sym_r_SQUOTE_SQUOTE_SQUOTE]),
       (STATE 474, 1, [aux_sym_string_literal_repeat1]), (STATE 2457, 1, [sym_string_literal]),
       (STATE 2505, 1, [sym_configurable_uri]), (STATE 2507, 1, [sym_uri]), (STATE 1869, 2,
       [sym_comment, sym_documentation_comment]), (STATE 627, 8,
       [sym__string_literal_double_quotes, sym__string_literal_single_quotes,
       sym__string_literal_double_quotes_multiple, sym__string_literal_single_quotes_multiple,
       sym__raw_string_literal_double_quotes, sym__raw_string_literal_single_quotes,
       sym__raw_string_literal_double_quotes_multiple,
       sym__raw_string_literal_single_quotes_multiple])])]"

lemma small_run_682: "small_run 1867 97599 ts_small_parse_table_682 1870 97789"
  by (simp add: small_simps ts_small_parse_table_682_def)

definition ts_small_parse_table_683 :: "small_group list" where
  "ts_small_parse_table_683 = [
     (97789, 26, [(ACTIONS 3, 1, [anon_sym_SLASH_SLASH]), (ACTIONS 5, 1,
       [anon_sym_SLASH_STAR]), (ACTIONS 7, 1, [anon_sym_SLASH_SLASH_SLASH]), (ACTIONS 9, 1,
       [sym__block_comment]), (ACTIONS 11, 1, [sym__documentation_block_comment]), (ACTIONS 17,
       1, [anon_sym_LPAREN]), (ACTIONS 33, 1, [sym_void_type]), (ACTIONS 45, 1,
       [anon_sym_Function]), (ACTIONS 143, 1, [anon_sym_AT]), (ACTIONS 3408, 1,
       [sym_identifier]), (ACTIONS 4252, 1, [anon_sym_RBRACE]), (STATE 1308, 1,
       [aux_sym__metadata_repeat1]), (STATE 1361, 1, [sym_annotation]), (STATE 1463, 1,
       [sym__function_builtin_identifier]), (STATE 1530, 1, [sym__type_name]), (STATE 1605, 1,
       [aux_sym__function_type_tails]), (STATE 1704, 1, [sym__function_type_tail]), (STATE 1796,
       1, [sym__type_not_function]), (STATE 1805, 1, [sym_record_type]), (STATE 1848, 1,
       [sym_function_type]), (STATE 1896, 1, [sym__type_not_void_not_function]), (STATE 2043, 1,
       [sym__metadata]), (STATE 3101, 1, [sym_typed_identifier]), (STATE 3254, 1,
       [sym_record_type_named_field]), (STATE 3495, 1, [sym__type]), (STATE 1870, 2,
       [sym_comment, sym_documentation_comment])]),
     (97869, 26, [(ACTIONS 3, 1, [anon_sym_SLASH_SLASH]), (ACTIONS 5, 1,
       [anon_sym_SLASH_STAR]), (ACTIONS 7, 1, [anon_sym_SLASH_SLASH_SLASH]), (ACTIONS 9, 1,
       [sym__block_comment]), (ACTIONS 11, 1, [sym__documentation_block_comment]), (ACTIONS 17,
       1, [anon_sym_LPAREN]), (ACTIONS 33, 1, [sym_void_type]), (ACTIONS 45, 1,
       [anon_sym_Function]), (ACTIONS 143, 1, [anon_sym_AT]), (ACTIONS 3408, 1,
       [sym_identifier]), (ACTIONS 4254, 1, [anon_sym_RBRACE]), (STATE 1308, 1,
       [aux_sym__metadata_repeat1]), (STATE 1361, 1, [sym_annotation]), (STATE 1463, 1,
       [sym__function_builtin_identifier]), (STATE 1530, 1, [sym__type_name]), (STATE 1605, 1,
       [aux_sym__function_type_tails]), (STATE 1704, 1, [sym__function_type_tail]), (STATE 1796,
       1, [sym__type_not_function]), (STATE 1805, 1, [sym_record_type]), (STATE 1848, 1,
       [sym_function_type]), (STATE 1896, 1, [sym__type_not_void_not_function]), (STATE 2043, 1,
       [sym__metadata]), (STATE 3101, 1, [sym_typed_identifier]), (STATE 3254, 1,
       [sym_record_type_named_field]), (STATE 3495, 1, [sym__type]), (STATE 1871, 2,
       [sym_comment, sym_documentation_comment])])]"

lemma small_run_683: "small_run 1870 97789 ts_small_parse_table_683 1872 97949"
  by (simp add: small_simps ts_small_parse_table_683_def)

definition ts_small_parse_table_684 :: "small_group list" where
  "ts_small_parse_table_684 = [
     (97949, 26, [(ACTIONS 3, 1, [anon_sym_SLASH_SLASH]), (ACTIONS 5, 1,
       [anon_sym_SLASH_STAR]), (ACTIONS 7, 1, [anon_sym_SLASH_SLASH_SLASH]), (ACTIONS 9, 1,
       [sym__block_comment]), (ACTIONS 11, 1, [sym__documentation_block_comment]), (ACTIONS 17,
       1, [anon_sym_LPAREN]), (ACTIONS 33, 1, [sym_void_type]), (ACTIONS 45, 1,
       [anon_sym_Function]), (ACTIONS 143, 1, [anon_sym_AT]), (ACTIONS 3408, 1,
       [sym_identifier]), (ACTIONS 4256, 1, [anon_sym_RBRACE]), (STATE 1308, 1,
       [aux_sym__metadata_repeat1]), (STATE 1361, 1, [sym_annotation]), (STATE 1463, 1,
       [sym__function_builtin_identifier]), (STATE 1530, 1, [sym__type_name]), (STATE 1605, 1,
       [aux_sym__function_type_tails]), (STATE 1704, 1, [sym__function_type_tail]), (STATE 1796,
       1, [sym__type_not_function]), (STATE 1805, 1, [sym_record_type]), (STATE 1848, 1,
       [sym_function_type]), (STATE 1896, 1, [sym__type_not_void_not_function]), (STATE 2043, 1,
       [sym__metadata]), (STATE 3101, 1, [sym_typed_identifier]), (STATE 3254, 1,
       [sym_record_type_named_field]), (STATE 3495, 1, [sym__type]), (STATE 1872, 2,
       [sym_comment, sym_documentation_comment])]),
     (98029, 26, [(ACTIONS 3, 1, [anon_sym_SLASH_SLASH]), (ACTIONS 5, 1,
       [anon_sym_SLASH_STAR]), (ACTIONS 7, 1, [anon_sym_SLASH_SLASH_SLASH]), (ACTIONS 9, 1,
       [sym__block_comment]), (ACTIONS 11, 1, [sym__documentation_block_comment]), (ACTIONS 17,
       1, [anon_sym_LPAREN]), (ACTIONS 33, 1, [sym_void_type]), (ACTIONS 45, 1,
       [anon_sym_Function]), (ACTIONS 143, 1, [anon_sym_AT]), (ACTIONS 3408, 1,
       [sym_identifier]), (ACTIONS 4258, 1, [anon_sym_RBRACE]), (STATE 1308, 1,
       [aux_sym__metadata_repeat1]), (STATE 1361, 1, [sym_annotation]), (STATE 1463, 1,
       [sym__function_builtin_identifier]), (STATE 1530, 1, [sym__type_name]), (STATE 1605, 1,
       [aux_sym__function_type_tails]), (STATE 1704, 1, [sym__function_type_tail]), (STATE 1796,
       1, [sym__type_not_function]), (STATE 1805, 1, [sym_record_type]), (STATE 1848, 1,
       [sym_function_type]), (STATE 1896, 1, [sym__type_not_void_not_function]), (STATE 2043, 1,
       [sym__metadata]), (STATE 3101, 1, [sym_typed_identifier]), (STATE 3254, 1,
       [sym_record_type_named_field]), (STATE 3495, 1, [sym__type]), (STATE 1873, 2,
       [sym_comment, sym_documentation_comment])])]"

lemma small_run_684: "small_run 1872 97949 ts_small_parse_table_684 1874 98109"
  by (simp add: small_simps ts_small_parse_table_684_def)

definition ts_small_parse_table_685 :: "small_group list" where
  "ts_small_parse_table_685 = [
     (98109, 26, [(ACTIONS 3, 1, [anon_sym_SLASH_SLASH]), (ACTIONS 5, 1,
       [anon_sym_SLASH_STAR]), (ACTIONS 7, 1, [anon_sym_SLASH_SLASH_SLASH]), (ACTIONS 9, 1,
       [sym__block_comment]), (ACTIONS 11, 1, [sym__documentation_block_comment]), (ACTIONS 17,
       1, [anon_sym_LPAREN]), (ACTIONS 33, 1, [sym_void_type]), (ACTIONS 45, 1,
       [anon_sym_Function]), (ACTIONS 143, 1, [anon_sym_AT]), (ACTIONS 3408, 1,
       [sym_identifier]), (ACTIONS 4260, 1, [anon_sym_RBRACE]), (STATE 1308, 1,
       [aux_sym__metadata_repeat1]), (STATE 1361, 1, [sym_annotation]), (STATE 1463, 1,
       [sym__function_builtin_identifier]), (STATE 1530, 1, [sym__type_name]), (STATE 1605, 1,
       [aux_sym__function_type_tails]), (STATE 1704, 1, [sym__function_type_tail]), (STATE 1796,
       1, [sym__type_not_function]), (STATE 1805, 1, [sym_record_type]), (STATE 1848, 1,
       [sym_function_type]), (STATE 1896, 1, [sym__type_not_void_not_function]), (STATE 2043, 1,
       [sym__metadata]), (STATE 3101, 1, [sym_typed_identifier]), (STATE 3254, 1,
       [sym_record_type_named_field]), (STATE 3495, 1, [sym__type]), (STATE 1874, 2,
       [sym_comment, sym_documentation_comment])]),
     (98189, 26, [(ACTIONS 3, 1, [anon_sym_SLASH_SLASH]), (ACTIONS 5, 1,
       [anon_sym_SLASH_STAR]), (ACTIONS 7, 1, [anon_sym_SLASH_SLASH_SLASH]), (ACTIONS 9, 1,
       [sym__block_comment]), (ACTIONS 11, 1, [sym__documentation_block_comment]), (ACTIONS 17,
       1, [anon_sym_LPAREN]), (ACTIONS 33, 1, [sym_void_type]), (ACTIONS 45, 1,
       [anon_sym_Function]), (ACTIONS 143, 1, [anon_sym_AT]), (ACTIONS 3408, 1,
       [sym_identifier]), (ACTIONS 4262, 1, [anon_sym_RBRACE]), (STATE 1308, 1,
       [aux_sym__metadata_repeat1]), (STATE 1361, 1, [sym_annotation]), (STATE 1463, 1,
       [sym__function_builtin_identifier]), (STATE 1530, 1, [sym__type_name]), (STATE 1605, 1,
       [aux_sym__function_type_tails]), (STATE 1704, 1, [sym__function_type_tail]), (STATE 1796,
       1, [sym__type_not_function]), (STATE 1805, 1, [sym_record_type]), (STATE 1848, 1,
       [sym_function_type]), (STATE 1896, 1, [sym__type_not_void_not_function]), (STATE 2043, 1,
       [sym__metadata]), (STATE 3101, 1, [sym_typed_identifier]), (STATE 3254, 1,
       [sym_record_type_named_field]), (STATE 3495, 1, [sym__type]), (STATE 1875, 2,
       [sym_comment, sym_documentation_comment])])]"

lemma small_run_685: "small_run 1874 98109 ts_small_parse_table_685 1876 98269"
  by (simp add: small_simps ts_small_parse_table_685_def)

definition ts_small_parse_table_686 :: "small_group list" where
  "ts_small_parse_table_686 = [
     (98269, 26, [(ACTIONS 3, 1, [anon_sym_SLASH_SLASH]), (ACTIONS 5, 1,
       [anon_sym_SLASH_STAR]), (ACTIONS 7, 1, [anon_sym_SLASH_SLASH_SLASH]), (ACTIONS 9, 1,
       [sym__block_comment]), (ACTIONS 11, 1, [sym__documentation_block_comment]), (ACTIONS 17,
       1, [anon_sym_LPAREN]), (ACTIONS 33, 1, [sym_void_type]), (ACTIONS 45, 1,
       [anon_sym_Function]), (ACTIONS 143, 1, [anon_sym_AT]), (ACTIONS 3408, 1,
       [sym_identifier]), (ACTIONS 4264, 1, [anon_sym_RBRACE]), (STATE 1308, 1,
       [aux_sym__metadata_repeat1]), (STATE 1361, 1, [sym_annotation]), (STATE 1463, 1,
       [sym__function_builtin_identifier]), (STATE 1530, 1, [sym__type_name]), (STATE 1605, 1,
       [aux_sym__function_type_tails]), (STATE 1704, 1, [sym__function_type_tail]), (STATE 1796,
       1, [sym__type_not_function]), (STATE 1805, 1, [sym_record_type]), (STATE 1848, 1,
       [sym_function_type]), (STATE 1896, 1, [sym__type_not_void_not_function]), (STATE 2043, 1,
       [sym__metadata]), (STATE 3101, 1, [sym_typed_identifier]), (STATE 3254, 1,
       [sym_record_type_named_field]), (STATE 3495, 1, [sym__type]), (STATE 1876, 2,
       [sym_comment, sym_documentation_comment])]),
     (98349, 26, [(ACTIONS 3, 1, [anon_sym_SLASH_SLASH]), (ACTIONS 5, 1,
       [anon_sym_SLASH_STAR]), (ACTIONS 7, 1, [anon_sym_SLASH_SLASH_SLASH]), (ACTIONS 9, 1,
       [sym__block_comment]), (ACTIONS 11, 1, [sym__documentation_block_comment]), (ACTIONS 17,
       1, [anon_sym_LPAREN]), (ACTIONS 33, 1, [sym_void_type]), (ACTIONS 45, 1,
       [anon_sym_Function]), (ACTIONS 143, 1, [anon_sym_AT]), (ACTIONS 3408, 1,
       [sym_identifier]), (ACTIONS 4266, 1, [anon_sym_RBRACE]), (STATE 1308, 1,
       [aux_sym__metadata_repeat1]), (STATE 1361, 1, [sym_annotation]), (STATE 1463, 1,
       [sym__function_builtin_identifier]), (STATE 1530, 1, [sym__type_name]), (STATE 1605, 1,
       [aux_sym__function_type_tails]), (STATE 1704, 1, [sym__function_type_tail]), (STATE 1796,
       1, [sym__type_not_function]), (STATE 1805, 1, [sym_record_type]), (STATE 1848, 1,
       [sym_function_type]), (STATE 1896, 1, [sym__type_not_void_not_function]), (STATE 2043, 1,
       [sym__metadata]), (STATE 3101, 1, [sym_typed_identifier]), (STATE 3254, 1,
       [sym_record_type_named_field]), (STATE 3495, 1, [sym__type]), (STATE 1877, 2,
       [sym_comment, sym_documentation_comment])])]"

lemma small_run_686: "small_run 1876 98269 ts_small_parse_table_686 1878 98429"
  by (simp add: small_simps ts_small_parse_table_686_def)

definition ts_small_parse_table_687 :: "small_group list" where
  "ts_small_parse_table_687 = [
     (98429, 26, [(ACTIONS 3, 1, [anon_sym_SLASH_SLASH]), (ACTIONS 5, 1,
       [anon_sym_SLASH_STAR]), (ACTIONS 7, 1, [anon_sym_SLASH_SLASH_SLASH]), (ACTIONS 9, 1,
       [sym__block_comment]), (ACTIONS 11, 1, [sym__documentation_block_comment]), (ACTIONS 17,
       1, [anon_sym_LPAREN]), (ACTIONS 33, 1, [sym_void_type]), (ACTIONS 45, 1,
       [anon_sym_Function]), (ACTIONS 143, 1, [anon_sym_AT]), (ACTIONS 3408, 1,
       [sym_identifier]), (ACTIONS 4268, 1, [anon_sym_RBRACE]), (STATE 1308, 1,
       [aux_sym__metadata_repeat1]), (STATE 1361, 1, [sym_annotation]), (STATE 1463, 1,
       [sym__function_builtin_identifier]), (STATE 1530, 1, [sym__type_name]), (STATE 1605, 1,
       [aux_sym__function_type_tails]), (STATE 1704, 1, [sym__function_type_tail]), (STATE 1796,
       1, [sym__type_not_function]), (STATE 1805, 1, [sym_record_type]), (STATE 1848, 1,
       [sym_function_type]), (STATE 1896, 1, [sym__type_not_void_not_function]), (STATE 2043, 1,
       [sym__metadata]), (STATE 3101, 1, [sym_typed_identifier]), (STATE 3254, 1,
       [sym_record_type_named_field]), (STATE 3495, 1, [sym__type]), (STATE 1878, 2,
       [sym_comment, sym_documentation_comment])]),
     (98509, 8, [(ACTIONS 3, 1, [anon_sym_SLASH_SLASH]), (ACTIONS 5, 1, [anon_sym_SLASH_STAR]),
       (ACTIONS 7, 1, [anon_sym_SLASH_SLASH_SLASH]), (ACTIONS 9, 1, [sym__block_comment]),
       (ACTIONS 11, 1, [sym__documentation_block_comment]), (STATE 1879, 2, [sym_comment,
       sym_documentation_comment]), (ACTIONS 1889, 4, [anon_sym_DQUOTE, anon_sym_SQUOTE,
       anon_sym_r_DQUOTE, anon_sym_r_SQUOTE]), (ACTIONS 1891, 16, [anon_sym_DQUOTE_DQUOTE_DQUOTE,
       anon_sym_SQUOTE_SQUOTE_SQUOTE, anon_sym_r_DQUOTE_DQUOTE_DQUOTE,
       anon_sym_r_SQUOTE_SQUOTE_SQUOTE, anon_sym_RBRACE, anon_sym_COMMA, anon_sym_RBRACK,
       anon_sym_COLON, anon_sym_RPAREN, anon_sym_QMARK, anon_sym_BANG, anon_sym_as,
       anon_sym_EQ_GT, anon_sym_when, anon_sym_AMP_AMP, anon_sym_PIPE_PIPE])]),
     (98553, 24, [(ACTIONS 3, 1, [anon_sym_SLASH_SLASH]), (ACTIONS 5, 1,
       [anon_sym_SLASH_STAR]), (ACTIONS 7, 1, [anon_sym_SLASH_SLASH_SLASH]), (ACTIONS 9, 1,
       [sym__block_comment]), (ACTIONS 11, 1, [sym__documentation_block_comment]), (ACTIONS 17,
       1, [anon_sym_LPAREN]), (ACTIONS 33, 1, [sym_void_type]), (ACTIONS 45, 1,
       [anon_sym_Function]), (ACTIONS 47, 1, [anon_sym_get]), (ACTIONS 61, 1, [anon_sym_set]),
       (ACTIONS 4150, 1, [sym_identifier]), (STATE 1463, 1, [sym__function_builtin_identifier]),
       (STATE 1530, 1, [sym__type_name]), (STATE 1605, 1, [aux_sym__function_type_tails]), (STATE
       1704, 1, [sym__function_type_tail]), (STATE 1796, 1, [sym__type_not_function]), (STATE
       1805, 1, [sym_record_type]), (STATE 1848, 1, [sym_function_type]), (STATE 1896, 1,
       [sym__type_not_void_not_function]), (STATE 2343, 1, [sym__set]), (STATE 2344, 1,
       [sym__get]), (STATE 2567, 1, [sym__type]), (STATE 1880, 2, [sym_comment,
       sym_documentation_comment]), (STATE 3264, 3, [sym_getter_signature, sym_setter_signature,
       sym_function_signature])])]"

lemma small_run_687: "small_run 1878 98429 ts_small_parse_table_687 1881 98629"
  by (simp add: small_simps ts_small_parse_table_687_def)

definition ts_small_parse_table_688 :: "small_group list" where
  "ts_small_parse_table_688 = [
     (98629, 26, [(ACTIONS 3, 1, [anon_sym_SLASH_SLASH]), (ACTIONS 5, 1,
       [anon_sym_SLASH_STAR]), (ACTIONS 7, 1, [anon_sym_SLASH_SLASH_SLASH]), (ACTIONS 9, 1,
       [sym__block_comment]), (ACTIONS 11, 1, [sym__documentation_block_comment]), (ACTIONS 17,
       1, [anon_sym_LPAREN]), (ACTIONS 33, 1, [sym_void_type]), (ACTIONS 45, 1,
       [anon_sym_Function]), (ACTIONS 143, 1, [anon_sym_AT]), (ACTIONS 3408, 1,
       [sym_identifier]), (ACTIONS 4270, 1, [anon_sym_LBRACE]), (ACTIONS 4272, 1,
       [anon_sym_RPAREN]), (STATE 1308, 1, [aux_sym__metadata_repeat1]), (STATE 1361, 1,
       [sym_annotation]), (STATE 1463, 1, [sym__function_builtin_identifier]), (STATE 1530, 1,
       [sym__type_name]), (STATE 1605, 1, [aux_sym__function_type_tails]), (STATE 1704, 1,
       [sym__function_type_tail]), (STATE 1796, 1, [sym__type_not_function]), (STATE 1805, 1,
       [sym_record_type]), (STATE 1848, 1, [sym_function_type]), (STATE 1896, 1,
       [sym__type_not_void_not_function]), (STATE 2088, 1, [sym__metadata]), (STATE 2822, 1,
       [sym__type]), (STATE 3056, 1, [sym_record_type_field]), (STATE 1881, 2, [sym_comment,
       sym_documentation_comment])]),
     (98709, 26, [(ACTIONS 3, 1, [anon_sym_SLASH_SLASH]), (ACTIONS 5, 1,
       [anon_sym_SLASH_STAR]), (ACTIONS 7, 1, [anon_sym_SLASH_SLASH_SLASH]), (ACTIONS 9, 1,
       [sym__block_comment]), (ACTIONS 11, 1, [sym__documentation_block_comment]), (ACTIONS 17,
       1, [anon_sym_LPAREN]), (ACTIONS 33, 1, [sym_void_type]), (ACTIONS 45, 1,
       [anon_sym_Function]), (ACTIONS 143, 1, [anon_sym_AT]), (ACTIONS 3408, 1,
       [sym_identifier]), (ACTIONS 4274, 1, [anon_sym_RBRACE]), (STATE 1308, 1,
       [aux_sym__metadata_repeat1]), (STATE 1361, 1, [sym_annotation]), (STATE 1463, 1,
       [sym__function_builtin_identifier]), (STATE 1530, 1, [sym__type_name]), (STATE 1605, 1,
       [aux_sym__function_type_tails]), (STATE 1704, 1, [sym__function_type_tail]), (STATE 1796,
       1, [sym__type_not_function]), (STATE 1805, 1, [sym_record_type]), (STATE 1848, 1,
       [sym_function_type]), (STATE 1896, 1, [sym__type_not_void_not_function]), (STATE 2043, 1,
       [sym__metadata]), (STATE 3101, 1, [sym_typed_identifier]), (STATE 3254, 1,
       [sym_record_type_named_field]), (STATE 3495, 1, [sym__type]), (STATE 1882, 2,
       [sym_comment, sym_documentation_comment])]),
     (98789, 8, [(ACTIONS 3, 1, [anon_sym_SLASH_SLASH]), (ACTIONS 5, 1, [anon_sym_SLASH_STAR]),
       (ACTIONS 7, 1, [anon_sym_SLASH_SLASH_SLASH]), (ACTIONS 9, 1, [sym__block_comment]),
       (ACTIONS 11, 1, [sym__documentation_block_comment]), (STATE 1883, 2, [sym_comment,
       sym_documentation_comment]), (ACTIONS 1957, 4, [anon_sym_DQUOTE, anon_sym_SQUOTE,
       anon_sym_r_DQUOTE, anon_sym_r_SQUOTE]), (ACTIONS 1959, 16, [anon_sym_DQUOTE_DQUOTE_DQUOTE,
       anon_sym_SQUOTE_SQUOTE_SQUOTE, anon_sym_r_DQUOTE_DQUOTE_DQUOTE,
       anon_sym_r_SQUOTE_SQUOTE_SQUOTE, anon_sym_RBRACE, anon_sym_COMMA, anon_sym_RBRACK,
       anon_sym_COLON, anon_sym_RPAREN, anon_sym_QMARK, anon_sym_BANG, anon_sym_as,
       anon_sym_EQ_GT, anon_sym_when, anon_sym_AMP_AMP, anon_sym_PIPE_PIPE])])]"

lemma small_run_688: "small_run 1881 98629 ts_small_parse_table_688 1884 98833"
  by (simp add: small_simps ts_small_parse_table_688_def)

definition ts_small_parse_table_689 :: "small_group list" where
  "ts_small_parse_table_689 = [
     (98833, 25, [(ACTIONS 3, 1, [anon_sym_SLASH_SLASH]), (ACTIONS 5, 1,
       [anon_sym_SLASH_STAR]), (ACTIONS 7, 1, [anon_sym_SLASH_SLASH_SLASH]), (ACTIONS 9, 1,
       [sym__block_comment]), (ACTIONS 11, 1, [sym__documentation_block_comment]), (ACTIONS 17,
       1, [anon_sym_LPAREN]), (ACTIONS 33, 1, [sym_void_type]), (ACTIONS 45, 1,
       [anon_sym_Function]), (ACTIONS 143, 1, [anon_sym_AT]), (ACTIONS 3408, 1,
       [sym_identifier]), (STATE 1308, 1, [aux_sym__metadata_repeat1]), (STATE 1361, 1,
       [sym_annotation]), (STATE 1463, 1, [sym__function_builtin_identifier]), (STATE 1530, 1,
       [sym__type_name]), (STATE 1605, 1, [aux_sym__function_type_tails]), (STATE 1704, 1,
       [sym__function_type_tail]), (STATE 1796, 1, [sym__type_not_function]), (STATE 1805, 1,
       [sym_record_type]), (STATE 1848, 1, [sym_function_type]), (STATE 1896, 1,
       [sym__type_not_void_not_function]), (STATE 2043, 1, [sym__metadata]), (STATE 2672, 1,
       [sym_record_type_named_field]), (STATE 3101, 1, [sym_typed_identifier]), (STATE 3495, 1,
       [sym__type]), (STATE 1884, 2, [sym_comment, sym_documentation_comment])]),
     (98910, 18, [(ACTIONS 3, 1, [anon_sym_SLASH_SLASH]), (ACTIONS 5, 1,
       [anon_sym_SLASH_STAR]), (ACTIONS 7, 1, [anon_sym_SLASH_SLASH_SLASH]), (ACTIONS 9, 1,
       [sym__block_comment]), (ACTIONS 11, 1, [sym__documentation_block_comment]), (ACTIONS 83,
       1, [anon_sym_DQUOTE]), (ACTIONS 85, 1, [anon_sym_SQUOTE]), (ACTIONS 87, 1,
       [anon_sym_DQUOTE_DQUOTE_DQUOTE]), (ACTIONS 89, 1, [anon_sym_SQUOTE_SQUOTE_SQUOTE]),
       (ACTIONS 91, 1, [anon_sym_r_DQUOTE]), (ACTIONS 93, 1, [anon_sym_r_SQUOTE]), (ACTIONS 95,
       1, [anon_sym_r_DQUOTE_DQUOTE_DQUOTE]), (ACTIONS 97, 1, [anon_sym_r_SQUOTE_SQUOTE_SQUOTE]),
       (STATE 474, 1, [aux_sym_string_literal_repeat1]), (STATE 2457, 1, [sym_string_literal]),
       (STATE 3139, 1, [sym_uri]), (STATE 1885, 2, [sym_comment, sym_documentation_comment]),
       (STATE 627, 8, [sym__string_literal_double_quotes, sym__string_literal_single_quotes,
       sym__string_literal_double_quotes_multiple, sym__string_literal_single_quotes_multiple,
       sym__raw_string_literal_double_quotes, sym__raw_string_literal_single_quotes,
       sym__raw_string_literal_double_quotes_multiple,
       sym__raw_string_literal_single_quotes_multiple])]),
     (98973, 25, [(ACTIONS 3, 1, [anon_sym_SLASH_SLASH]), (ACTIONS 5, 1,
       [anon_sym_SLASH_STAR]), (ACTIONS 7, 1, [anon_sym_SLASH_SLASH_SLASH]), (ACTIONS 9, 1,
       [sym__block_comment]), (ACTIONS 11, 1, [sym__documentation_block_comment]), (ACTIONS 17,
       1, [anon_sym_LPAREN]), (ACTIONS 33, 1, [sym_void_type]), (ACTIONS 45, 1,
       [anon_sym_Function]), (ACTIONS 143, 1, [anon_sym_AT]), (ACTIONS 3408, 1,
       [sym_identifier]), (STATE 1308, 1, [aux_sym__metadata_repeat1]), (STATE 1361, 1,
       [sym_annotation]), (STATE 1463, 1, [sym__function_builtin_identifier]), (STATE 1530, 1,
       [sym__type_name]), (STATE 1605, 1, [aux_sym__function_type_tails]), (STATE 1704, 1,
       [sym__function_type_tail]), (STATE 1796, 1, [sym__type_not_function]), (STATE 1805, 1,
       [sym_record_type]), (STATE 1848, 1, [sym_function_type]), (STATE 1896, 1,
       [sym__type_not_void_not_function]), (STATE 2043, 1, [sym__metadata]), (STATE 2938, 1,
       [sym_record_type_named_field]), (STATE 3101, 1, [sym_typed_identifier]), (STATE 3495, 1,
       [sym__type]), (STATE 1886, 2, [sym_comment, sym_documentation_comment])])]"

lemma small_run_689: "small_run 1884 98833 ts_small_parse_table_689 1887 99050"
  by (simp add: small_simps ts_small_parse_table_689_def)

definition ts_small_parse_table_690 :: "small_group list" where
  "ts_small_parse_table_690 = [
     (99050, 25, [(ACTIONS 3, 1, [anon_sym_SLASH_SLASH]), (ACTIONS 5, 1,
       [anon_sym_SLASH_STAR]), (ACTIONS 7, 1, [anon_sym_SLASH_SLASH_SLASH]), (ACTIONS 9, 1,
       [sym__block_comment]), (ACTIONS 11, 1, [sym__documentation_block_comment]), (ACTIONS 17,
       1, [anon_sym_LPAREN]), (ACTIONS 33, 1, [sym_void_type]), (ACTIONS 45, 1,
       [anon_sym_Function]), (ACTIONS 143, 1, [anon_sym_AT]), (ACTIONS 3408, 1,
       [sym_identifier]), (STATE 1308, 1, [aux_sym__metadata_repeat1]), (STATE 1361, 1,
       [sym_annotation]), (STATE 1463, 1, [sym__function_builtin_identifier]), (STATE 1530, 1,
       [sym__type_name]), (STATE 1605, 1, [aux_sym__function_type_tails]), (STATE 1704, 1,
       [sym__function_type_tail]), (STATE 1796, 1, [sym__type_not_function]), (STATE 1805, 1,
       [sym_record_type]), (STATE 1848, 1, [sym_function_type]), (STATE 1896, 1,
       [sym__type_not_void_not_function]), (STATE 2033, 1, [sym__metadata]), (STATE 2639, 1,
       [sym__type]), (STATE 2722, 1, [sym_normal_parameter_type]), (STATE 2770, 1,
       [sym_typed_identifier]), (STATE 1887, 2, [sym_comment, sym_documentation_comment])]),
     (99127, 25, [(ACTIONS 3, 1, [anon_sym_SLASH_SLASH]), (ACTIONS 5, 1,
       [anon_sym_SLASH_STAR]), (ACTIONS 7, 1, [anon_sym_SLASH_SLASH_SLASH]), (ACTIONS 9, 1,
       [sym__block_comment]), (ACTIONS 11, 1, [sym__documentation_block_comment]), (ACTIONS 17,
       1, [anon_sym_LPAREN]), (ACTIONS 33, 1, [sym_void_type]), (ACTIONS 45, 1,
       [anon_sym_Function]), (ACTIONS 143, 1, [anon_sym_AT]), (ACTIONS 3408, 1,
       [sym_identifier]), (STATE 1308, 1, [aux_sym__metadata_repeat1]), (STATE 1361, 1,
       [sym_annotation]), (STATE 1463, 1, [sym__function_builtin_identifier]), (STATE 1530, 1,
       [sym__type_name]), (STATE 1605, 1, [aux_sym__function_type_tails]), (STATE 1704, 1,
       [sym__function_type_tail]), (STATE 1796, 1, [sym__type_not_function]), (STATE 1805, 1,
       [sym_record_type]), (STATE 1848, 1, [sym_function_type]), (STATE 1896, 1,
       [sym__type_not_void_not_function]), (STATE 2043, 1, [sym__metadata]), (STATE 2933, 1,
       [sym_record_type_named_field]), (STATE 3101, 1, [sym_typed_identifier]), (STATE 3495, 1,
       [sym__type]), (STATE 1888, 2, [sym_comment, sym_documentation_comment])])]"

lemma small_run_690: "small_run 1887 99050 ts_small_parse_table_690 1889 99204"
  by (simp add: small_simps ts_small_parse_table_690_def)

definition ts_small_parse_table_691 :: "small_group list" where
  "ts_small_parse_table_691 = [
     (99204, 25, [(ACTIONS 3, 1, [anon_sym_SLASH_SLASH]), (ACTIONS 5, 1,
       [anon_sym_SLASH_STAR]), (ACTIONS 7, 1, [anon_sym_SLASH_SLASH_SLASH]), (ACTIONS 9, 1,
       [sym__block_comment]), (ACTIONS 11, 1, [sym__documentation_block_comment]), (ACTIONS 17,
       1, [anon_sym_LPAREN]), (ACTIONS 33, 1, [sym_void_type]), (ACTIONS 45, 1,
       [anon_sym_Function]), (ACTIONS 143, 1, [anon_sym_AT]), (ACTIONS 3408, 1,
       [sym_identifier]), (STATE 1308, 1, [aux_sym__metadata_repeat1]), (STATE 1361, 1,
       [sym_annotation]), (STATE 1463, 1, [sym__function_builtin_identifier]), (STATE 1530, 1,
       [sym__type_name]), (STATE 1605, 1, [aux_sym__function_type_tails]), (STATE 1704, 1,
       [sym__function_type_tail]), (STATE 1796, 1, [sym__type_not_function]), (STATE 1805, 1,
       [sym_record_type]), (STATE 1848, 1, [sym_function_type]), (STATE 1896, 1,
       [sym__type_not_void_not_function]), (STATE 2043, 1, [sym__metadata]), (STATE 2912, 1,
       [sym_record_type_named_field]), (STATE 3101, 1, [sym_typed_identifier]), (STATE 3495, 1,
       [sym__type]), (STATE 1889, 2, [sym_comment, sym_documentation_comment])]),
     (99281, 25, [(ACTIONS 3, 1, [anon_sym_SLASH_SLASH]), (ACTIONS 5, 1,
       [anon_sym_SLASH_STAR]), (ACTIONS 7, 1, [anon_sym_SLASH_SLASH_SLASH]), (ACTIONS 9, 1,
       [sym__block_comment]), (ACTIONS 11, 1, [sym__documentation_block_comment]), (ACTIONS 17,
       1, [anon_sym_LPAREN]), (ACTIONS 33, 1, [sym_void_type]), (ACTIONS 45, 1,
       [anon_sym_Function]), (ACTIONS 143, 1, [anon_sym_AT]), (ACTIONS 3408, 1,
       [sym_identifier]), (STATE 1308, 1, [aux_sym__metadata_repeat1]), (STATE 1361, 1,
       [sym_annotation]), (STATE 1463, 1, [sym__function_builtin_identifier]), (STATE 1530, 1,
       [sym__type_name]), (STATE 1605, 1, [aux_sym__function_type_tails]), (STATE 1704, 1,
       [sym__function_type_tail]), (STATE 1796, 1, [sym__type_not_function]), (STATE 1805, 1,
       [sym_record_type]), (STATE 1848, 1, [sym_function_type]), (STATE 1896, 1,
       [sym__type_not_void_not_function]), (STATE 2043, 1, [sym__metadata]), (STATE 2961, 1,
       [sym_record_type_named_field]), (STATE 3101, 1, [sym_typed_identifier]), (STATE 3495, 1,
       [sym__type]), (STATE 1890, 2, [sym_comment, sym_documentation_comment])])]"

lemma small_run_691: "small_run 1889 99204 ts_small_parse_table_691 1891 99358"
  by (simp add: small_simps ts_small_parse_table_691_def)

definition ts_small_parse_table_692 :: "small_group list" where
  "ts_small_parse_table_692 = [
     (99358, 25, [(ACTIONS 3, 1, [anon_sym_SLASH_SLASH]), (ACTIONS 5, 1,
       [anon_sym_SLASH_STAR]), (ACTIONS 7, 1, [anon_sym_SLASH_SLASH_SLASH]), (ACTIONS 9, 1,
       [sym__block_comment]), (ACTIONS 11, 1, [sym__documentation_block_comment]), (ACTIONS 17,
       1, [anon_sym_LPAREN]), (ACTIONS 33, 1, [sym_void_type]), (ACTIONS 45, 1,
       [anon_sym_Function]), (ACTIONS 143, 1, [anon_sym_AT]), (ACTIONS 3408, 1,
       [sym_identifier]), (STATE 1308, 1, [aux_sym__metadata_repeat1]), (STATE 1361, 1,
       [sym_annotation]), (STATE 1463, 1, [sym__function_builtin_identifier]), (STATE 1530, 1,
       [sym__type_name]), (STATE 1605, 1, [aux_sym__function_type_tails]), (STATE 1704, 1,
       [sym__function_type_tail]), (STATE 1796, 1, [sym__type_not_function]), (STATE 1805, 1,
       [sym_record_type]), (STATE 1848, 1, [sym_function_type]), (STATE 1896, 1,
       [sym__type_not_void_not_function]), (STATE 2043, 1, [sym__metadata]), (STATE 2974, 1,
       [sym_record_type_named_field]), (STATE 3101, 1, [sym_typed_identifier]), (STATE 3495, 1,
       [sym__type]), (STATE 1891, 2, [sym_comment, sym_documentation_comment])]),
     (99435, 25, [(ACTIONS 3, 1, [anon_sym_SLASH_SLASH]), (ACTIONS 5, 1,
       [anon_sym_SLASH_STAR]), (ACTIONS 7, 1, [anon_sym_SLASH_SLASH_SLASH]), (ACTIONS 9, 1,
       [sym__block_comment]), (ACTIONS 11, 1, [sym__documentation_block_comment]), (ACTIONS 17,
       1, [anon_sym_LPAREN]), (ACTIONS 33, 1, [sym_void_type]), (ACTIONS 45, 1,
       [anon_sym_Function]), (ACTIONS 143, 1, [anon_sym_AT]), (ACTIONS 3408, 1,
       [sym_identifier]), (STATE 1308, 1, [aux_sym__metadata_repeat1]), (STATE 1361, 1,
       [sym_annotation]), (STATE 1463, 1, [sym__function_builtin_identifier]), (STATE 1530, 1,
       [sym__type_name]), (STATE 1605, 1, [aux_sym__function_type_tails]), (STATE 1704, 1,
       [sym__function_type_tail]), (STATE 1796, 1, [sym__type_not_function]), (STATE 1805, 1,
       [sym_record_type]), (STATE 1848, 1, [sym_function_type]), (STATE 1896, 1,
       [sym__type_not_void_not_function]), (STATE 2043, 1, [sym__metadata]), (STATE 2844, 1,
       [sym_record_type_named_field]), (STATE 3101, 1, [sym_typed_identifier]), (STATE 3495, 1,
       [sym__type]), (STATE 1892, 2, [sym_comment, sym_documentation_comment])]),
     (99512, 18, [(ACTIONS 3, 1, [anon_sym_SLASH_SLASH]), (ACTIONS 5, 1,
       [anon_sym_SLASH_STAR]), (ACTIONS 7, 1, [anon_sym_SLASH_SLASH_SLASH]), (ACTIONS 9, 1,
       [sym__block_comment]), (ACTIONS 11, 1, [sym__documentation_block_comment]), (ACTIONS 83,
       1, [anon_sym_DQUOTE]), (ACTIONS 85, 1, [anon_sym_SQUOTE]), (ACTIONS 87, 1,
       [anon_sym_DQUOTE_DQUOTE_DQUOTE]), (ACTIONS 89, 1, [anon_sym_SQUOTE_SQUOTE_SQUOTE]),
       (ACTIONS 91, 1, [anon_sym_r_DQUOTE]), (ACTIONS 93, 1, [anon_sym_r_SQUOTE]), (ACTIONS 95,
       1, [anon_sym_r_DQUOTE_DQUOTE_DQUOTE]), (ACTIONS 97, 1, [anon_sym_r_SQUOTE_SQUOTE_SQUOTE]),
       (STATE 474, 1, [aux_sym_string_literal_repeat1]), (STATE 2457, 1, [sym_string_literal]),
       (STATE 3242, 1, [sym_uri]), (STATE 1893, 2, [sym_comment, sym_documentation_comment]),
       (STATE 627, 8, [sym__string_literal_double_quotes, sym__string_literal_single_quotes,
       sym__string_literal_double_quotes_multiple, sym__string_literal_single_quotes_multiple,
       sym__raw_string_literal_double_quotes, sym__raw_string_literal_single_quotes,
       sym__raw_string_literal_double_quotes_multiple,
       sym__raw_string_literal_single_quotes_multiple])])]"

lemma small_run_692: "small_run 1891 99358 ts_small_parse_table_692 1894 99575"
  by (simp add: small_simps ts_small_parse_table_692_def)

definition ts_small_parse_table_693 :: "small_group list" where
  "ts_small_parse_table_693 = [
     (99575, 24, [(ACTIONS 3, 1, [anon_sym_SLASH_SLASH]), (ACTIONS 5, 1,
       [anon_sym_SLASH_STAR]), (ACTIONS 7, 1, [anon_sym_SLASH_SLASH_SLASH]), (ACTIONS 9, 1,
       [sym__block_comment]), (ACTIONS 11, 1, [sym__documentation_block_comment]), (ACTIONS 17,
       1, [anon_sym_LPAREN]), (ACTIONS 33, 1, [sym_void_type]), (ACTIONS 45, 1,
       [anon_sym_Function]), (ACTIONS 47, 1, [anon_sym_get]), (ACTIONS 61, 1, [anon_sym_set]),
       (ACTIONS 4150, 1, [sym_identifier]), (STATE 1463, 1, [sym__function_builtin_identifier]),
       (STATE 1530, 1, [sym__type_name]), (STATE 1605, 1, [aux_sym__function_type_tails]), (STATE
       1704, 1, [sym__function_type_tail]), (STATE 1796, 1, [sym__type_not_function]), (STATE
       1805, 1, [sym_record_type]), (STATE 1848, 1, [sym_function_type]), (STATE 1896, 1,
       [sym__type_not_void_not_function]), (STATE 2343, 1, [sym__set]), (STATE 2463, 1,
       [sym__get]), (STATE 2566, 1, [sym__type]), (STATE 1894, 2, [sym_comment,
       sym_documentation_comment]), (STATE 3314, 2, [sym_setter_signature,
       sym_function_signature])]),
     (99650, 25, [(ACTIONS 3, 1, [anon_sym_SLASH_SLASH]), (ACTIONS 5, 1,
       [anon_sym_SLASH_STAR]), (ACTIONS 7, 1, [anon_sym_SLASH_SLASH_SLASH]), (ACTIONS 9, 1,
       [sym__block_comment]), (ACTIONS 11, 1, [sym__documentation_block_comment]), (ACTIONS 17,
       1, [anon_sym_LPAREN]), (ACTIONS 33, 1, [sym_void_type]), (ACTIONS 45, 1,
       [anon_sym_Function]), (ACTIONS 143, 1, [anon_sym_AT]), (ACTIONS 3408, 1,
       [sym_identifier]), (STATE 1308, 1, [aux_sym__metadata_repeat1]), (STATE 1361, 1,
       [sym_annotation]), (STATE 1463, 1, [sym__function_builtin_identifier]), (STATE 1530, 1,
       [sym__type_name]), (STATE 1605, 1, [aux_sym__function_type_tails]), (STATE 1704, 1,
       [sym__function_type_tail]), (STATE 1796, 1, [sym__type_not_function]), (STATE 1805, 1,
       [sym_record_type]), (STATE 1848, 1, [sym_function_type]), (STATE 1896, 1,
       [sym__type_not_void_not_function]), (STATE 2043, 1, [sym__metadata]), (STATE 2856, 1,
       [sym_record_type_named_field]), (STATE 3101, 1, [sym_typed_identifier]), (STATE 3495, 1,
       [sym__type]), (STATE 1895, 2, [sym_comment, sym_documentation_comment])]),
     (99727, 8, [(ACTIONS 3, 1, [anon_sym_SLASH_SLASH]), (ACTIONS 5, 1, [anon_sym_SLASH_STAR]),
       (ACTIONS 7, 1, [anon_sym_SLASH_SLASH_SLASH]), (ACTIONS 9, 1, [sym__block_comment]),
       (ACTIONS 11, 1, [sym__documentation_block_comment]), (STATE 1896, 2, [sym_comment,
       sym_documentation_comment]), (ACTIONS 4119, 8, [anon_sym_when, anon_sym_Function,
       anon_sym_get, anon_sym_operator, anon_sym_set, anon_sym_this, anon_sym_super,
       sym_identifier]), (ACTIONS 2548, 11, [anon_sym_LBRACE, anon_sym_RBRACE, anon_sym_COMMA,
       anon_sym_RBRACK, anon_sym_COLON, anon_sym_RPAREN, anon_sym_GT, anon_sym_SEMI,
       anon_sym_EQ_GT, anon_sym_AMP_AMP, anon_sym_PIPE_PIPE])])]"

lemma small_run_693: "small_run 1894 99575 ts_small_parse_table_693 1897 99770"
  by (simp add: small_simps ts_small_parse_table_693_def)

definition ts_small_parse_table_694 :: "small_group list" where
  "ts_small_parse_table_694 = [
     (99770, 25, [(ACTIONS 3, 1, [anon_sym_SLASH_SLASH]), (ACTIONS 5, 1,
       [anon_sym_SLASH_STAR]), (ACTIONS 7, 1, [anon_sym_SLASH_SLASH_SLASH]), (ACTIONS 9, 1,
       [sym__block_comment]), (ACTIONS 11, 1, [sym__documentation_block_comment]), (ACTIONS 17,
       1, [anon_sym_LPAREN]), (ACTIONS 33, 1, [sym_void_type]), (ACTIONS 45, 1,
       [anon_sym_Function]), (ACTIONS 143, 1, [anon_sym_AT]), (ACTIONS 3408, 1,
       [sym_identifier]), (STATE 1308, 1, [aux_sym__metadata_repeat1]), (STATE 1361, 1,
       [sym_annotation]), (STATE 1463, 1, [sym__function_builtin_identifier]), (STATE 1530, 1,
       [sym__type_name]), (STATE 1605, 1, [aux_sym__function_type_tails]), (STATE 1704, 1,
       [sym__function_type_tail]), (STATE 1796, 1, [sym__type_not_function]), (STATE 1805, 1,
       [sym_record_type]), (STATE 1848, 1, [sym_function_type]), (STATE 1896, 1,
       [sym__type_not_void_not_function]), (STATE 2043, 1, [sym__metadata]), (STATE 2905, 1,
       [sym_record_type_named_field]), (STATE 3101, 1, [sym_typed_identifier]), (STATE 3495, 1,
       [sym__type]), (STATE 1897, 2, [sym_comment, sym_documentation_comment])]),
     (99847, 25, [(ACTIONS 3, 1, [anon_sym_SLASH_SLASH]), (ACTIONS 5, 1,
       [anon_sym_SLASH_STAR]), (ACTIONS 7, 1, [anon_sym_SLASH_SLASH_SLASH]), (ACTIONS 9, 1,
       [sym__block_comment]), (ACTIONS 11, 1, [sym__documentation_block_comment]), (ACTIONS 17,
       1, [anon_sym_LPAREN]), (ACTIONS 33, 1, [sym_void_type]), (ACTIONS 45, 1,
       [anon_sym_Function]), (ACTIONS 143, 1, [anon_sym_AT]), (ACTIONS 3408, 1,
       [sym_identifier]), (STATE 1308, 1, [aux_sym__metadata_repeat1]), (STATE 1361, 1,
       [sym_annotation]), (STATE 1463, 1, [sym__function_builtin_identifier]), (STATE 1530, 1,
       [sym__type_name]), (STATE 1605, 1, [aux_sym__function_type_tails]), (STATE 1704, 1,
       [sym__function_type_tail]), (STATE 1796, 1, [sym__type_not_function]), (STATE 1805, 1,
       [sym_record_type]), (STATE 1848, 1, [sym_function_type]), (STATE 1896, 1,
       [sym__type_not_void_not_function]), (STATE 2033, 1, [sym__metadata]), (STATE 2639, 1,
       [sym__type]), (STATE 2770, 1, [sym_typed_identifier]), (STATE 3005, 1,
       [sym_normal_parameter_type]), (STATE 1898, 2, [sym_comment, sym_documentation_comment])])]"

lemma small_run_694: "small_run 1897 99770 ts_small_parse_table_694 1899 99924"
  by (simp add: small_simps ts_small_parse_table_694_def)

definition ts_small_parse_table_695 :: "small_group list" where
  "ts_small_parse_table_695 = [
     (99924, 25, [(ACTIONS 3, 1, [anon_sym_SLASH_SLASH]), (ACTIONS 5, 1,
       [anon_sym_SLASH_STAR]), (ACTIONS 7, 1, [anon_sym_SLASH_SLASH_SLASH]), (ACTIONS 9, 1,
       [sym__block_comment]), (ACTIONS 11, 1, [sym__documentation_block_comment]), (ACTIONS 17,
       1, [anon_sym_LPAREN]), (ACTIONS 33, 1, [sym_void_type]), (ACTIONS 45, 1,
       [anon_sym_Function]), (ACTIONS 143, 1, [anon_sym_AT]), (ACTIONS 3408, 1,
       [sym_identifier]), (STATE 1308, 1, [aux_sym__metadata_repeat1]), (STATE 1361, 1,
       [sym_annotation]), (STATE 1463, 1, [sym__function_builtin_identifier]), (STATE 1530, 1,
       [sym__type_name]), (STATE 1605, 1, [aux_sym__function_type_tails]), (STATE 1704, 1,
       [sym__function_type_tail]), (STATE 1796, 1, [sym__type_not_function]), (STATE 1805, 1,
       [sym_record_type]), (STATE 1848, 1, [sym_function_type]), (STATE 1896, 1,
       [sym__type_not_void_not_function]), (STATE 2043, 1, [sym__metadata]), (STATE 2825, 1,
       [sym_record_type_named_field]), (STATE 3101, 1, [sym_typed_identifier]), (STATE 3495, 1,
       [sym__type]), (STATE 1899, 2, [sym_comment, sym_documentation_comment])]),
     (100001, 25, [(ACTIONS 3, 1, [anon_sym_SLASH_SLASH]), (ACTIONS 5, 1,
       [anon_sym_SLASH_STAR]), (ACTIONS 7, 1, [anon_sym_SLASH_SLASH_SLASH]), (ACTIONS 9, 1,
       [sym__block_comment]), (ACTIONS 11, 1, [sym__documentation_block_comment]), (ACTIONS 17,
       1, [anon_sym_LPAREN]), (ACTIONS 33, 1, [sym_void_type]), (ACTIONS 45, 1,
       [anon_sym_Function]), (ACTIONS 143, 1, [anon_sym_AT]), (ACTIONS 3408, 1,
       [sym_identifier]), (STATE 1308, 1, [aux_sym__metadata_repeat1]), (STATE 1361, 1,
       [sym_annotation]), (STATE 1463, 1, [sym__function_builtin_identifier]), (STATE 1530, 1,
       [sym__type_name]), (STATE 1605, 1, [aux_sym__function_type_tails]), (STATE 1704, 1,
       [sym__function_type_tail]), (STATE 1796, 1, [sym__type_not_function]), (STATE 1805, 1,
       [sym_record_type]), (STATE 1848, 1, [sym_function_type]), (STATE 1896, 1,
       [sym__type_not_void_not_function]), (STATE 2043, 1, [sym__metadata]), (STATE 2816, 1,
       [sym_record_type_named_field]), (STATE 3101, 1, [sym_typed_identifier]), (STATE 3495, 1,
       [sym__type]), (STATE 1900, 2, [sym_comment, sym_documentation_comment])])]"

lemma small_run_695: "small_run 1899 99924 ts_small_parse_table_695 1901 100078"
  by (simp add: small_simps ts_small_parse_table_695_def)

definition ts_small_parse_table_696 :: "small_group list" where
  "ts_small_parse_table_696 = [
     (100078, 25, [(ACTIONS 3, 1, [anon_sym_SLASH_SLASH]), (ACTIONS 5, 1,
       [anon_sym_SLASH_STAR]), (ACTIONS 7, 1, [anon_sym_SLASH_SLASH_SLASH]), (ACTIONS 9, 1,
       [sym__block_comment]), (ACTIONS 11, 1, [sym__documentation_block_comment]), (ACTIONS 17,
       1, [anon_sym_LPAREN]), (ACTIONS 33, 1, [sym_void_type]), (ACTIONS 45, 1,
       [anon_sym_Function]), (ACTIONS 143, 1, [anon_sym_AT]), (ACTIONS 3408, 1,
       [sym_identifier]), (STATE 1308, 1, [aux_sym__metadata_repeat1]), (STATE 1361, 1,
       [sym_annotation]), (STATE 1463, 1, [sym__function_builtin_identifier]), (STATE 1530, 1,
       [sym__type_name]), (STATE 1605, 1, [aux_sym__function_type_tails]), (STATE 1704, 1,
       [sym__function_type_tail]), (STATE 1796, 1, [sym__type_not_function]), (STATE 1805, 1,
       [sym_record_type]), (STATE 1848, 1, [sym_function_type]), (STATE 1896, 1,
       [sym__type_not_void_not_function]), (STATE 2043, 1, [sym__metadata]), (STATE 3101, 1,
       [sym_typed_identifier]), (STATE 3254, 1, [sym_record_type_named_field]), (STATE 3495, 1,
       [sym__type]), (STATE 1901, 2, [sym_comment, sym_documentation_comment])]),
     (100155, 25, [(ACTIONS 3, 1, [anon_sym_SLASH_SLASH]), (ACTIONS 5, 1,
       [anon_sym_SLASH_STAR]), (ACTIONS 7, 1, [anon_sym_SLASH_SLASH_SLASH]), (ACTIONS 9, 1,
       [sym__block_comment]), (ACTIONS 11, 1, [sym__documentation_block_comment]), (ACTIONS 17,
       1, [anon_sym_LPAREN]), (ACTIONS 33, 1, [sym_void_type]), (ACTIONS 45, 1,
       [anon_sym_Function]), (ACTIONS 143, 1, [anon_sym_AT]), (ACTIONS 3408, 1,
       [sym_identifier]), (STATE 1308, 1, [aux_sym__metadata_repeat1]), (STATE 1361, 1,
       [sym_annotation]), (STATE 1463, 1, [sym__function_builtin_identifier]), (STATE 1530, 1,
       [sym__type_name]), (STATE 1605, 1, [aux_sym__function_type_tails]), (STATE 1704, 1,
       [sym__function_type_tail]), (STATE 1796, 1, [sym__type_not_function]), (STATE 1805, 1,
       [sym_record_type]), (STATE 1848, 1, [sym_function_type]), (STATE 1896, 1,
       [sym__type_not_void_not_function]), (STATE 2043, 1, [sym__metadata]), (STATE 2735, 1,
       [sym_record_type_named_field]), (STATE 3101, 1, [sym_typed_identifier]), (STATE 3495, 1,
       [sym__type]), (STATE 1902, 2, [sym_comment, sym_documentation_comment])])]"

lemma small_run_696: "small_run 1901 100078 ts_small_parse_table_696 1903 100232"
  by (simp add: small_simps ts_small_parse_table_696_def)

definition ts_small_parse_table_697 :: "small_group list" where
  "ts_small_parse_table_697 = [
     (100232, 25, [(ACTIONS 3, 1, [anon_sym_SLASH_SLASH]), (ACTIONS 5, 1,
       [anon_sym_SLASH_STAR]), (ACTIONS 7, 1, [anon_sym_SLASH_SLASH_SLASH]), (ACTIONS 9, 1,
       [sym__block_comment]), (ACTIONS 11, 1, [sym__documentation_block_comment]), (ACTIONS 17,
       1, [anon_sym_LPAREN]), (ACTIONS 33, 1, [sym_void_type]), (ACTIONS 45, 1,
       [anon_sym_Function]), (ACTIONS 143, 1, [anon_sym_AT]), (ACTIONS 3408, 1,
       [sym_identifier]), (STATE 1308, 1, [aux_sym__metadata_repeat1]), (STATE 1361, 1,
       [sym_annotation]), (STATE 1463, 1, [sym__function_builtin_identifier]), (STATE 1530, 1,
       [sym__type_name]), (STATE 1605, 1, [aux_sym__function_type_tails]), (STATE 1704, 1,
       [sym__function_type_tail]), (STATE 1796, 1, [sym__type_not_function]), (STATE 1805, 1,
       [sym_record_type]), (STATE 1848, 1, [sym_function_type]), (STATE 1896, 1,
       [sym__type_not_void_not_function]), (STATE 2043, 1, [sym__metadata]), (STATE 2800, 1,
       [sym_record_type_named_field]), (STATE 3101, 1, [sym_typed_identifier]), (STATE 3495, 1,
       [sym__type]), (STATE 1903, 2, [sym_comment, sym_documentation_comment])]),
     (100309, 17, [(ACTIONS 3, 1, [anon_sym_SLASH_SLASH]), (ACTIONS 5, 1,
       [anon_sym_SLASH_STAR]), (ACTIONS 7, 1, [anon_sym_SLASH_SLASH_SLASH]), (ACTIONS 9, 1,
       [sym__block_comment]), (ACTIONS 11, 1, [sym__documentation_block_comment]), (ACTIONS 2015,
       1, [anon_sym_QMARK]), (ACTIONS 3692, 1, [anon_sym_DOT]), (ACTIONS 4278, 1,
       [anon_sym_LPAREN]), (ACTIONS 4280, 1, [anon_sym_LT]), (STATE 1612, 1,
       [sym__type_dot_identifier]), (STATE 2016, 1, [sym__strict_formal_parameter_list]), (STATE
       2020, 1, [sym_formal_parameter_list]), (STATE 2275, 1, [sym__formal_parameter_part]),
       (STATE 2932, 1, [sym_type_parameters]), (STATE 1904, 2, [sym_comment,
       sym_documentation_comment]), (ACTIONS 1320, 4, [anon_sym_Function, anon_sym_this,
       anon_sym_super, sym_identifier]), (ACTIONS 4276, 6, [anon_sym_RBRACE, anon_sym_COMMA,
       anon_sym_RBRACK, anon_sym_COLON, anon_sym_RPAREN, anon_sym_EQ])]),
     (100370, 8, [(ACTIONS 3, 1, [anon_sym_SLASH_SLASH]), (ACTIONS 5, 1,
       [anon_sym_SLASH_STAR]), (ACTIONS 7, 1, [anon_sym_SLASH_SLASH_SLASH]), (ACTIONS 9, 1,
       [sym__block_comment]), (ACTIONS 11, 1, [sym__documentation_block_comment]), (STATE 1905,
       2, [sym_comment, sym_documentation_comment]), (ACTIONS 4283, 8, [anon_sym_when,
       anon_sym_Function, anon_sym_get, anon_sym_operator, anon_sym_set, anon_sym_this,
       anon_sym_super, sym_identifier]), (ACTIONS 2766, 11, [anon_sym_LBRACE, anon_sym_RBRACE,
       anon_sym_COMMA, anon_sym_RBRACK, anon_sym_COLON, anon_sym_RPAREN, anon_sym_GT,
       anon_sym_SEMI, anon_sym_EQ_GT, anon_sym_AMP_AMP, anon_sym_PIPE_PIPE])])]"

lemma small_run_697: "small_run 1903 100232 ts_small_parse_table_697 1906 100413"
  by (simp add: small_simps ts_small_parse_table_697_def)

definition ts_small_parse_table_698 :: "small_group list" where
  "ts_small_parse_table_698 = [
     (100413, 25, [(ACTIONS 3, 1, [anon_sym_SLASH_SLASH]), (ACTIONS 5, 1,
       [anon_sym_SLASH_STAR]), (ACTIONS 7, 1, [anon_sym_SLASH_SLASH_SLASH]), (ACTIONS 9, 1,
       [sym__block_comment]), (ACTIONS 11, 1, [sym__documentation_block_comment]), (ACTIONS 17,
       1, [anon_sym_LPAREN]), (ACTIONS 33, 1, [sym_void_type]), (ACTIONS 45, 1,
       [anon_sym_Function]), (ACTIONS 143, 1, [anon_sym_AT]), (ACTIONS 3408, 1,
       [sym_identifier]), (STATE 1308, 1, [aux_sym__metadata_repeat1]), (STATE 1361, 1,
       [sym_annotation]), (STATE 1463, 1, [sym__function_builtin_identifier]), (STATE 1530, 1,
       [sym__type_name]), (STATE 1605, 1, [aux_sym__function_type_tails]), (STATE 1704, 1,
       [sym__function_type_tail]), (STATE 1796, 1, [sym__type_not_function]), (STATE 1805, 1,
       [sym_record_type]), (STATE 1848, 1, [sym_function_type]), (STATE 1896, 1,
       [sym__type_not_void_not_function]), (STATE 2043, 1, [sym__metadata]), (STATE 2872, 1,
       [sym_record_type_named_field]), (STATE 3101, 1, [sym_typed_identifier]), (STATE 3495, 1,
       [sym__type]), (STATE 1906, 2, [sym_comment, sym_documentation_comment])]),
     (100490, 25, [(ACTIONS 3, 1, [anon_sym_SLASH_SLASH]), (ACTIONS 5, 1,
       [anon_sym_SLASH_STAR]), (ACTIONS 7, 1, [anon_sym_SLASH_SLASH_SLASH]), (ACTIONS 9, 1,
       [sym__block_comment]), (ACTIONS 11, 1, [sym__documentation_block_comment]), (ACTIONS 17,
       1, [anon_sym_LPAREN]), (ACTIONS 33, 1, [sym_void_type]), (ACTIONS 45, 1,
       [anon_sym_Function]), (ACTIONS 143, 1, [anon_sym_AT]), (ACTIONS 3408, 1,
       [sym_identifier]), (STATE 1308, 1, [aux_sym__metadata_repeat1]), (STATE 1361, 1,
       [sym_annotation]), (STATE 1463, 1, [sym__function_builtin_identifier]), (STATE 1530, 1,
       [sym__type_name]), (STATE 1605, 1, [aux_sym__function_type_tails]), (STATE 1704, 1,
       [sym__function_type_tail]), (STATE 1796, 1, [sym__type_not_function]), (STATE 1805, 1,
       [sym_record_type]), (STATE 1848, 1, [sym_function_type]), (STATE 1896, 1,
       [sym__type_not_void_not_function]), (STATE 2043, 1, [sym__metadata]), (STATE 2804, 1,
       [sym_record_type_named_field]), (STATE 3101, 1, [sym_typed_identifier]), (STATE 3495, 1,
       [sym__type]), (STATE 1907, 2, [sym_comment, sym_documentation_comment])]),
     (100567, 18, [(ACTIONS 3, 1, [anon_sym_SLASH_SLASH]), (ACTIONS 5, 1,
       [anon_sym_SLASH_STAR]), (ACTIONS 7, 1, [anon_sym_SLASH_SLASH_SLASH]), (ACTIONS 9, 1,
       [sym__block_comment]), (ACTIONS 11, 1, [sym__documentation_block_comment]), (ACTIONS 83,
       1, [anon_sym_DQUOTE]), (ACTIONS 85, 1, [anon_sym_SQUOTE]), (ACTIONS 87, 1,
       [anon_sym_DQUOTE_DQUOTE_DQUOTE]), (ACTIONS 89, 1, [anon_sym_SQUOTE_SQUOTE_SQUOTE]),
       (ACTIONS 91, 1, [anon_sym_r_DQUOTE]), (ACTIONS 93, 1, [anon_sym_r_SQUOTE]), (ACTIONS 95,
       1, [anon_sym_r_DQUOTE_DQUOTE_DQUOTE]), (ACTIONS 97, 1, [anon_sym_r_SQUOTE_SQUOTE_SQUOTE]),
       (ACTIONS 3825, 1, [anon_sym_SEMI]), (STATE 474, 1, [aux_sym_string_literal_repeat1]),
       (STATE 2458, 1, [sym_string_literal]), (STATE 1908, 2, [sym_comment,
       sym_documentation_comment]), (STATE 627, 8, [sym__string_literal_double_quotes,
       sym__string_literal_single_quotes, sym__string_literal_double_quotes_multiple,
       sym__string_literal_single_quotes_multiple, sym__raw_string_literal_double_quotes,
       sym__raw_string_literal_single_quotes, sym__raw_string_literal_double_quotes_multiple,
       sym__raw_string_literal_single_quotes_multiple])])]"

lemma small_run_698: "small_run 1906 100413 ts_small_parse_table_698 1909 100630"
  by (simp add: small_simps ts_small_parse_table_698_def)

definition ts_small_parse_table_699 :: "small_group list" where
  "ts_small_parse_table_699 = [
     (100630, 18, [(ACTIONS 3, 1, [anon_sym_SLASH_SLASH]), (ACTIONS 5, 1,
       [anon_sym_SLASH_STAR]), (ACTIONS 7, 1, [anon_sym_SLASH_SLASH_SLASH]), (ACTIONS 9, 1,
       [sym__block_comment]), (ACTIONS 11, 1, [sym__documentation_block_comment]), (ACTIONS 83,
       1, [anon_sym_DQUOTE]), (ACTIONS 85, 1, [anon_sym_SQUOTE]), (ACTIONS 87, 1,
       [anon_sym_DQUOTE_DQUOTE_DQUOTE]), (ACTIONS 89, 1, [anon_sym_SQUOTE_SQUOTE_SQUOTE]),
       (ACTIONS 91, 1, [anon_sym_r_DQUOTE]), (ACTIONS 93, 1, [anon_sym_r_SQUOTE]), (ACTIONS 95,
       1, [anon_sym_r_DQUOTE_DQUOTE_DQUOTE]), (ACTIONS 97, 1, [anon_sym_r_SQUOTE_SQUOTE_SQUOTE]),
       (STATE 474, 1, [aux_sym_string_literal_repeat1]), (STATE 2457, 1, [sym_string_literal]),
       (STATE 2537, 1, [sym_uri]), (STATE 1909, 2, [sym_comment, sym_documentation_comment]),
       (STATE 627, 8, [sym__string_literal_double_quotes, sym__string_literal_single_quotes,
       sym__string_literal_double_quotes_multiple, sym__string_literal_single_quotes_multiple,
       sym__raw_string_literal_double_quotes, sym__raw_string_literal_single_quotes,
       sym__raw_string_literal_double_quotes_multiple,
       sym__raw_string_literal_single_quotes_multiple])]),
     (100693, 25, [(ACTIONS 3, 1, [anon_sym_SLASH_SLASH]), (ACTIONS 5, 1,
       [anon_sym_SLASH_STAR]), (ACTIONS 7, 1, [anon_sym_SLASH_SLASH_SLASH]), (ACTIONS 9, 1,
       [sym__block_comment]), (ACTIONS 11, 1, [sym__documentation_block_comment]), (ACTIONS 17,
       1, [anon_sym_LPAREN]), (ACTIONS 33, 1, [sym_void_type]), (ACTIONS 45, 1,
       [anon_sym_Function]), (ACTIONS 143, 1, [anon_sym_AT]), (ACTIONS 3408, 1,
       [sym_identifier]), (STATE 1308, 1, [aux_sym__metadata_repeat1]), (STATE 1361, 1,
       [sym_annotation]), (STATE 1463, 1, [sym__function_builtin_identifier]), (STATE 1530, 1,
       [sym__type_name]), (STATE 1605, 1, [aux_sym__function_type_tails]), (STATE 1704, 1,
       [sym__function_type_tail]), (STATE 1796, 1, [sym__type_not_function]), (STATE 1805, 1,
       [sym_record_type]), (STATE 1848, 1, [sym_function_type]), (STATE 1896, 1,
       [sym__type_not_void_not_function]), (STATE 2043, 1, [sym__metadata]), (STATE 2762, 1,
       [sym_record_type_named_field]), (STATE 3101, 1, [sym_typed_identifier]), (STATE 3495, 1,
       [sym__type]), (STATE 1910, 2, [sym_comment, sym_documentation_comment])]),
     (100770, 8, [(ACTIONS 3, 1, [anon_sym_SLASH_SLASH]), (ACTIONS 5, 1,
       [anon_sym_SLASH_STAR]), (ACTIONS 7, 1, [anon_sym_SLASH_SLASH_SLASH]), (ACTIONS 9, 1,
       [sym__block_comment]), (ACTIONS 11, 1, [sym__documentation_block_comment]), (STATE 1911,
       2, [sym_comment, sym_documentation_comment]), (ACTIONS 4285, 6, [anon_sym_LT, anon_sym_GT,
       anon_sym_GT_GT, anon_sym_SLASH, anon_sym_TILDE, anon_sym_LBRACK_RBRACK]), (ACTIONS 4287,
       13, [anon_sym_LT_EQ, anon_sym_GT_EQ, anon_sym_PIPE, anon_sym_CARET, anon_sym_AMP,
       anon_sym_LT_LT, anon_sym_GT_GT_GT, sym__additive_operator, anon_sym_STAR,
       anon_sym_PERCENT, anon_sym_TILDE_SLASH, anon_sym_EQ_EQ, anon_sym_LBRACK_RBRACK_EQ])])]"

lemma small_run_699: "small_run 1909 100630 ts_small_parse_table_699 1912 100813"
  by (simp add: small_simps ts_small_parse_table_699_def)

definition ts_small_parse_table_700 :: "small_group list" where
  "ts_small_parse_table_700 = [
     (100813, 25, [(ACTIONS 3, 1, [anon_sym_SLASH_SLASH]), (ACTIONS 5, 1,
       [anon_sym_SLASH_STAR]), (ACTIONS 7, 1, [anon_sym_SLASH_SLASH_SLASH]), (ACTIONS 9, 1,
       [sym__block_comment]), (ACTIONS 11, 1, [sym__documentation_block_comment]), (ACTIONS 17,
       1, [anon_sym_LPAREN]), (ACTIONS 33, 1, [sym_void_type]), (ACTIONS 45, 1,
       [anon_sym_Function]), (ACTIONS 143, 1, [anon_sym_AT]), (ACTIONS 3408, 1,
       [sym_identifier]), (STATE 1308, 1, [aux_sym__metadata_repeat1]), (STATE 1361, 1,
       [sym_annotation]), (STATE 1463, 1, [sym__function_builtin_identifier]), (STATE 1530, 1,
       [sym__type_name]), (STATE 1605, 1, [aux_sym__function_type_tails]), (STATE 1704, 1,
       [sym__function_type_tail]), (STATE 1796, 1, [sym__type_not_function]), (STATE 1805, 1,
       [sym_record_type]), (STATE 1848, 1, [sym_function_type]), (STATE 1896, 1,
       [sym__type_not_void_not_function]), (STATE 2043, 1, [sym__metadata]), (STATE 2725, 1,
       [sym_record_type_named_field]), (STATE 3101, 1, [sym_typed_identifier]), (STATE 3495, 1,
       [sym__type]), (STATE 1912, 2, [sym_comment, sym_documentation_comment])]),
     (100890, 25, [(ACTIONS 3, 1, [anon_sym_SLASH_SLASH]), (ACTIONS 5, 1,
       [anon_sym_SLASH_STAR]), (ACTIONS 7, 1, [anon_sym_SLASH_SLASH_SLASH]), (ACTIONS 9, 1,
       [sym__block_comment]), (ACTIONS 11, 1, [sym__documentation_block_comment]), (ACTIONS 17,
       1, [anon_sym_LPAREN]), (ACTIONS 33, 1, [sym_void_type]), (ACTIONS 45, 1,
       [anon_sym_Function]), (ACTIONS 143, 1, [anon_sym_AT]), (ACTIONS 3408, 1,
       [sym_identifier]), (STATE 1308, 1, [aux_sym__metadata_repeat1]), (STATE 1361, 1,
       [sym_annotation]), (STATE 1463, 1, [sym__function_builtin_identifier]), (STATE 1530, 1,
       [sym__type_name]), (STATE 1605, 1, [aux_sym__function_type_tails]), (STATE 1704, 1,
       [sym__function_type_tail]), (STATE 1796, 1, [sym__type_not_function]), (STATE 1805, 1,
       [sym_record_type]), (STATE 1848, 1, [sym_function_type]), (STATE 1896, 1,
       [sym__type_not_void_not_function]), (STATE 2043, 1, [sym__metadata]), (STATE 2718, 1,
       [sym_record_type_named_field]), (STATE 3101, 1, [sym_typed_identifier]), (STATE 3495, 1,
       [sym__type]), (STATE 1913, 2, [sym_comment, sym_documentation_comment])])]"

lemma small_run_700: "small_run 1912 100813 ts_small_parse_table_700 1914 100967"
  by (simp add: small_simps ts_small_parse_table_700_def)

definition ts_small_parse_table_701 :: "small_group list" where
  "ts_small_parse_table_701 = [
     (100967, 24, [(ACTIONS 3, 1, [anon_sym_SLASH_SLASH]), (ACTIONS 5, 1,
       [anon_sym_SLASH_STAR]), (ACTIONS 7, 1, [anon_sym_SLASH_SLASH_SLASH]), (ACTIONS 9, 1,
       [sym__block_comment]), (ACTIONS 11, 1, [sym__documentation_block_comment]), (ACTIONS 17,
       1, [anon_sym_LPAREN]), (ACTIONS 33, 1, [sym_void_type]), (ACTIONS 35, 1, [anon_sym_var]),
       (ACTIONS 45, 1, [anon_sym_Function]), (ACTIONS 145, 1, [anon_sym_final]), (ACTIONS 3408,
       1, [sym_identifier]), (STATE 1463, 1, [sym__function_builtin_identifier]), (STATE 1530, 1,
       [sym__type_name]), (STATE 1605, 1, [aux_sym__function_type_tails]), (STATE 1704, 1,
       [sym__function_type_tail]), (STATE 1796, 1, [sym__type_not_function]), (STATE 1805, 1,
       [sym_record_type]), (STATE 1848, 1, [sym_function_type]), (STATE 1896, 1,
       [sym__type_not_void_not_function]), (STATE 1976, 1, [sym_inferred_type]), (STATE 1986, 1,
       [sym_final_builtin]), (STATE 2799, 1, [sym__var_or_type]), (STATE 2943, 1, [sym__type]),
       (STATE 1914, 2, [sym_comment, sym_documentation_comment])]),
     (101041, 24, [(ACTIONS 3, 1, [anon_sym_SLASH_SLASH]), (ACTIONS 5, 1,
       [anon_sym_SLASH_STAR]), (ACTIONS 7, 1, [anon_sym_SLASH_SLASH_SLASH]), (ACTIONS 9, 1,
       [sym__block_comment]), (ACTIONS 11, 1, [sym__documentation_block_comment]), (ACTIONS 17,
       1, [anon_sym_LPAREN]), (ACTIONS 33, 1, [sym_void_type]), (ACTIONS 35, 1, [anon_sym_var]),
       (ACTIONS 45, 1, [anon_sym_Function]), (ACTIONS 145, 1, [anon_sym_final]), (ACTIONS 3408,
       1, [sym_identifier]), (STATE 1463, 1, [sym__function_builtin_identifier]), (STATE 1530, 1,
       [sym__type_name]), (STATE 1605, 1, [aux_sym__function_type_tails]), (STATE 1704, 1,
       [sym__function_type_tail]), (STATE 1796, 1, [sym__type_not_function]), (STATE 1805, 1,
       [sym_record_type]), (STATE 1848, 1, [sym_function_type]), (STATE 1896, 1,
       [sym__type_not_void_not_function]), (STATE 1976, 1, [sym_inferred_type]), (STATE 1993, 1,
       [sym_final_builtin]), (STATE 2943, 1, [sym__type]), (STATE 2987, 1, [sym__var_or_type]),
       (STATE 1915, 2, [sym_comment, sym_documentation_comment])]),
     (101115, 24, [(ACTIONS 3, 1, [anon_sym_SLASH_SLASH]), (ACTIONS 5, 1,
       [anon_sym_SLASH_STAR]), (ACTIONS 7, 1, [anon_sym_SLASH_SLASH_SLASH]), (ACTIONS 9, 1,
       [sym__block_comment]), (ACTIONS 11, 1, [sym__documentation_block_comment]), (ACTIONS 33,
       1, [sym_void_type]), (ACTIONS 45, 1, [anon_sym_Function]), (ACTIONS 3161, 1,
       [anon_sym_LT]), (ACTIONS 4289, 1, [sym_identifier]), (ACTIONS 4291, 1, [anon_sym_LBRACE]),
       (ACTIONS 4293, 1, [anon_sym_LBRACK]), (ACTIONS 4295, 1, [anon_sym_LPAREN]), (STATE 1261,
       1, [sym__record_literal_no_const]), (STATE 1530, 1, [sym__type_name]), (STATE 1704, 1,
       [sym__function_type_tail]), (STATE 1985, 1, [sym_record_type]), (STATE 2099, 1,
       [sym__type_not_void_not_function]), (STATE 2144, 1, [sym__function_builtin_identifier]),
       (STATE 2145, 1, [sym_function_type]), (STATE 2161, 1, [aux_sym__function_type_tails]),
       (STATE 2596, 1, [sym__type_not_function]), (STATE 2623, 1, [sym__type_not_void]), (STATE
       3097, 1, [sym_type_arguments]), (STATE 1916, 2, [sym_comment,
       sym_documentation_comment])])]"

lemma small_run_701: "small_run 1914 100967 ts_small_parse_table_701 1917 101189"
  by (simp add: small_simps ts_small_parse_table_701_def)

definition ts_small_parse_table_702 :: "small_group list" where
  "ts_small_parse_table_702 = [
     (101189, 24, [(ACTIONS 3, 1, [anon_sym_SLASH_SLASH]), (ACTIONS 5, 1,
       [anon_sym_SLASH_STAR]), (ACTIONS 7, 1, [anon_sym_SLASH_SLASH_SLASH]), (ACTIONS 9, 1,
       [sym__block_comment]), (ACTIONS 11, 1, [sym__documentation_block_comment]), (ACTIONS 33,
       1, [sym_void_type]), (ACTIONS 45, 1, [anon_sym_Function]), (ACTIONS 3161, 1,
       [anon_sym_LT]), (ACTIONS 4289, 1, [sym_identifier]), (ACTIONS 4297, 1, [anon_sym_LBRACE]),
       (ACTIONS 4299, 1, [anon_sym_LBRACK]), (ACTIONS 4301, 1, [anon_sym_LPAREN]), (STATE 1530,
       1, [sym__type_name]), (STATE 1704, 1, [sym__function_type_tail]), (STATE 1985, 1,
       [sym_record_type]), (STATE 2099, 1, [sym__type_not_void_not_function]), (STATE 2144, 1,
       [sym__function_builtin_identifier]), (STATE 2145, 1, [sym_function_type]), (STATE 2161, 1,
       [aux_sym__function_type_tails]), (STATE 2367, 1, [sym__record_literal_no_const]), (STATE
       2592, 1, [sym__type_not_void]), (STATE 2596, 1, [sym__type_not_function]), (STATE 3141, 1,
       [sym_type_arguments]), (STATE 1917, 2, [sym_comment, sym_documentation_comment])]),
     (101263, 22, [(ACTIONS 3, 1, [anon_sym_SLASH_SLASH]), (ACTIONS 5, 1,
       [anon_sym_SLASH_STAR]), (ACTIONS 7, 1, [anon_sym_SLASH_SLASH_SLASH]), (ACTIONS 9, 1,
       [sym__block_comment]), (ACTIONS 11, 1, [sym__documentation_block_comment]), (ACTIONS 119,
       1, [anon_sym_BANG]), (ACTIONS 3398, 1, [anon_sym_LPAREN]), (ACTIONS 4303, 1,
       [anon_sym_LBRACK]), (ACTIONS 4305, 1, [anon_sym_QMARK]), (ACTIONS 4307, 1, [anon_sym_LT]),
       (ACTIONS 4309, 1, [anon_sym_DOT]), (ACTIONS 4311, 1, [anon_sym_QMARK_DOT]), (STATE 906, 1,
       [sym_index_selector]), (STATE 922, 1, [sym__assignable_selector]), (STATE 975, 1,
       [sym__assignable_selector_part]), (STATE 1958, 1,
       [aux_sym__assignable_selector_part_repeat1]), (STATE 2273, 1, [sym_type_arguments]),
       (STATE 2338, 1, [sym_selector]), (STATE 2401, 1, [sym_arguments]), (STATE 907, 2,
       [sym_unconditional_assignable_selector, sym_conditional_assignable_selector]), (STATE
       1918, 2, [sym_comment, sym_documentation_comment]), (STATE 2385, 2,
       [sym__exclamation_operator, sym_argument_part])]),
     (101333, 8, [(ACTIONS 3, 1, [anon_sym_SLASH_SLASH]), (ACTIONS 5, 1,
       [anon_sym_SLASH_STAR]), (ACTIONS 7, 1, [anon_sym_SLASH_SLASH_SLASH]), (ACTIONS 9, 1,
       [sym__block_comment]), (ACTIONS 11, 1, [sym__documentation_block_comment]), (STATE 1919,
       2, [sym_comment, sym_documentation_comment]), (ACTIONS 4313, 7, [anon_sym_when,
       anon_sym_get, anon_sym_operator, anon_sym_set, anon_sym_this, anon_sym_super,
       sym_identifier]), (ACTIONS 4315, 11, [anon_sym_LBRACE, anon_sym_RBRACE, anon_sym_COMMA,
       anon_sym_RBRACK, anon_sym_COLON, anon_sym_RPAREN, anon_sym_GT, anon_sym_SEMI,
       anon_sym_EQ_GT, anon_sym_AMP_AMP, anon_sym_PIPE_PIPE])])]"

lemma small_run_702: "small_run 1917 101189 ts_small_parse_table_702 1920 101375"
  by (simp add: small_simps ts_small_parse_table_702_def)

definition ts_small_parse_table_703 :: "small_group list" where
  "ts_small_parse_table_703 = [
     (101375, 22, [(ACTIONS 3, 1, [anon_sym_SLASH_SLASH]), (ACTIONS 5, 1,
       [anon_sym_SLASH_STAR]), (ACTIONS 7, 1, [anon_sym_SLASH_SLASH_SLASH]), (ACTIONS 9, 1,
       [sym__block_comment]), (ACTIONS 11, 1, [sym__documentation_block_comment]), (ACTIONS 119,
       1, [anon_sym_BANG]), (ACTIONS 3398, 1, [anon_sym_LPAREN]), (ACTIONS 4303, 1,
       [anon_sym_LBRACK]), (ACTIONS 4305, 1, [anon_sym_QMARK]), (ACTIONS 4307, 1, [anon_sym_LT]),
       (ACTIONS 4309, 1, [anon_sym_DOT]), (ACTIONS 4311, 1, [anon_sym_QMARK_DOT]), (STATE 906, 1,
       [sym_index_selector]), (STATE 1020, 1, [sym__assignable_selector]), (STATE 1307, 1,
       [sym__assignable_selector_part]), (STATE 1941, 1,
       [aux_sym__assignable_selector_part_repeat1]), (STATE 2273, 1, [sym_type_arguments]),
       (STATE 2338, 1, [sym_selector]), (STATE 2401, 1, [sym_arguments]), (STATE 907, 2,
       [sym_unconditional_assignable_selector, sym_conditional_assignable_selector]), (STATE
       1920, 2, [sym_comment, sym_documentation_comment]), (STATE 2385, 2,
       [sym__exclamation_operator, sym_argument_part])]),
     (101445, 13, [(ACTIONS 3, 1, [anon_sym_SLASH_SLASH]), (ACTIONS 5, 1,
       [anon_sym_SLASH_STAR]), (ACTIONS 7, 1, [anon_sym_SLASH_SLASH_SLASH]), (ACTIONS 9, 1,
       [sym__block_comment]), (ACTIONS 11, 1, [sym__documentation_block_comment]), (ACTIONS 4319,
       1, [anon_sym_QMARK]), (ACTIONS 4324, 1, [anon_sym_DOT]), (STATE 1612, 1,
       [sym__type_dot_identifier]), (ACTIONS 1320, 2, [anon_sym_Function, sym_identifier]),
       (ACTIONS 2015, 2, [anon_sym_LPAREN, anon_sym_LT]), (ACTIONS 4322, 2, [anon_sym_as,
       anon_sym_when]), (STATE 1921, 2, [sym_comment, sym_documentation_comment]), (ACTIONS 4317,
       9, [anon_sym_RBRACE, anon_sym_COMMA, anon_sym_RBRACK, anon_sym_COLON, anon_sym_RPAREN,
       anon_sym_BANG, anon_sym_EQ_GT, anon_sym_AMP_AMP, anon_sym_PIPE_PIPE])]),
     (101497, 17, [(ACTIONS 3, 1, [anon_sym_SLASH_SLASH]), (ACTIONS 5, 1,
       [anon_sym_SLASH_STAR]), (ACTIONS 7, 1, [anon_sym_SLASH_SLASH_SLASH]), (ACTIONS 9, 1,
       [sym__block_comment]), (ACTIONS 11, 1, [sym__documentation_block_comment]), (ACTIONS 83,
       1, [anon_sym_DQUOTE]), (ACTIONS 85, 1, [anon_sym_SQUOTE]), (ACTIONS 87, 1,
       [anon_sym_DQUOTE_DQUOTE_DQUOTE]), (ACTIONS 89, 1, [anon_sym_SQUOTE_SQUOTE_SQUOTE]),
       (ACTIONS 91, 1, [anon_sym_r_DQUOTE]), (ACTIONS 93, 1, [anon_sym_r_SQUOTE]), (ACTIONS 95,
       1, [anon_sym_r_DQUOTE_DQUOTE_DQUOTE]), (ACTIONS 97, 1, [anon_sym_r_SQUOTE_SQUOTE_SQUOTE]),
       (STATE 474, 1, [aux_sym_string_literal_repeat1]), (STATE 3360, 1, [sym_string_literal]),
       (STATE 1922, 2, [sym_comment, sym_documentation_comment]), (STATE 627, 8,
       [sym__string_literal_double_quotes, sym__string_literal_single_quotes,
       sym__string_literal_double_quotes_multiple, sym__string_literal_single_quotes_multiple,
       sym__raw_string_literal_double_quotes, sym__raw_string_literal_single_quotes,
       sym__raw_string_literal_double_quotes_multiple,
       sym__raw_string_literal_single_quotes_multiple])])]"

lemma small_run_703: "small_run 1920 101375 ts_small_parse_table_703 1923 101557"
  by (simp add: small_simps ts_small_parse_table_703_def)

definition ts_small_parse_table_704 :: "small_group list" where
  "ts_small_parse_table_704 = [
     (101557, 24, [(ACTIONS 3, 1, [anon_sym_SLASH_SLASH]), (ACTIONS 5, 1,
       [anon_sym_SLASH_STAR]), (ACTIONS 7, 1, [anon_sym_SLASH_SLASH_SLASH]), (ACTIONS 9, 1,
       [sym__block_comment]), (ACTIONS 11, 1, [sym__documentation_block_comment]), (ACTIONS 33,
       1, [sym_void_type]), (ACTIONS 45, 1, [anon_sym_Function]), (ACTIONS 3161, 1,
       [anon_sym_LT]), (ACTIONS 4132, 1, [anon_sym_LBRACE]), (ACTIONS 4134, 1,
       [anon_sym_LBRACK]), (ACTIONS 4136, 1, [anon_sym_LPAREN]), (ACTIONS 4289, 1,
       [sym_identifier]), (STATE 979, 1, [sym__record_literal_no_const]), (STATE 1530, 1,
       [sym__type_name]), (STATE 1704, 1, [sym__function_type_tail]), (STATE 1985, 1,
       [sym_record_type]), (STATE 2099, 1, [sym__type_not_void_not_function]), (STATE 2144, 1,
       [sym__function_builtin_identifier]), (STATE 2145, 1, [sym_function_type]), (STATE 2161, 1,
       [aux_sym__function_type_tails]), (STATE 2596, 1, [sym__type_not_function]), (STATE 2657,
       1, [sym__type_not_void]), (STATE 3163, 1, [sym_type_arguments]), (STATE 1923, 2,
       [sym_comment, sym_documentation_comment])]),
     (101631, 24, [(ACTIONS 3, 1, [anon_sym_SLASH_SLASH]), (ACTIONS 5, 1,
       [anon_sym_SLASH_STAR]), (ACTIONS 7, 1, [anon_sym_SLASH_SLASH_SLASH]), (ACTIONS 9, 1,
       [sym__block_comment]), (ACTIONS 11, 1, [sym__documentation_block_comment]), (ACTIONS 33,
       1, [sym_void_type]), (ACTIONS 45, 1, [anon_sym_Function]), (ACTIONS 3161, 1,
       [anon_sym_LT]), (ACTIONS 4289, 1, [sym_identifier]), (ACTIONS 4327, 1, [anon_sym_LBRACE]),
       (ACTIONS 4329, 1, [anon_sym_LBRACK]), (ACTIONS 4331, 1, [anon_sym_LPAREN]), (STATE 1089,
       1, [sym__record_literal_no_const]), (STATE 1530, 1, [sym__type_name]), (STATE 1704, 1,
       [sym__function_type_tail]), (STATE 1985, 1, [sym_record_type]), (STATE 2099, 1,
       [sym__type_not_void_not_function]), (STATE 2144, 1, [sym__function_builtin_identifier]),
       (STATE 2145, 1, [sym_function_type]), (STATE 2161, 1, [aux_sym__function_type_tails]),
       (STATE 2596, 1, [sym__type_not_function]), (STATE 2650, 1, [sym__type_not_void]), (STATE
       3079, 1, [sym_type_arguments]), (STATE 1924, 2, [sym_comment,
       sym_documentation_comment])]),
     (101705, 22, [(ACTIONS 3, 1, [anon_sym_SLASH_SLASH]), (ACTIONS 5, 1,
       [anon_sym_SLASH_STAR]), (ACTIONS 7, 1, [anon_sym_SLASH_SLASH_SLASH]), (ACTIONS 9, 1,
       [sym__block_comment]), (ACTIONS 11, 1, [sym__documentation_block_comment]), (ACTIONS 119,
       1, [anon_sym_BANG]), (ACTIONS 3398, 1, [anon_sym_LPAREN]), (ACTIONS 4307, 1,
       [anon_sym_LT]), (ACTIONS 4333, 1, [anon_sym_LBRACK]), (ACTIONS 4335, 1, [anon_sym_QMARK]),
       (ACTIONS 4337, 1, [anon_sym_DOT]), (ACTIONS 4339, 1, [anon_sym_QMARK_DOT]), (STATE 1232,
       1, [sym_index_selector]), (STATE 1258, 1, [sym__assignable_selector]), (STATE 1499, 1,
       [sym__assignable_selector_part]), (STATE 1937, 1,
       [aux_sym__assignable_selector_part_repeat1]), (STATE 2273, 1, [sym_type_arguments]),
       (STATE 2338, 1, [sym_selector]), (STATE 2401, 1, [sym_arguments]), (STATE 1231, 2,
       [sym_unconditional_assignable_selector, sym_conditional_assignable_selector]), (STATE
       1925, 2, [sym_comment, sym_documentation_comment]), (STATE 2385, 2,
       [sym__exclamation_operator, sym_argument_part])])]"

lemma small_run_704: "small_run 1923 101557 ts_small_parse_table_704 1926 101775"
  by (simp add: small_simps ts_small_parse_table_704_def)

definition ts_small_parse_table_705 :: "small_group list" where
  "ts_small_parse_table_705 = [
     (101775, 22, [(ACTIONS 3, 1, [anon_sym_SLASH_SLASH]), (ACTIONS 5, 1,
       [anon_sym_SLASH_STAR]), (ACTIONS 7, 1, [anon_sym_SLASH_SLASH_SLASH]), (ACTIONS 9, 1,
       [sym__block_comment]), (ACTIONS 11, 1, [sym__documentation_block_comment]), (ACTIONS 119,
       1, [anon_sym_BANG]), (ACTIONS 3398, 1, [anon_sym_LPAREN]), (ACTIONS 4307, 1,
       [anon_sym_LT]), (ACTIONS 4341, 1, [anon_sym_LBRACK]), (ACTIONS 4343, 1, [anon_sym_QMARK]),
       (ACTIONS 4345, 1, [anon_sym_DOT]), (ACTIONS 4347, 1, [anon_sym_QMARK_DOT]), (STATE 1090,
       1, [sym_index_selector]), (STATE 1099, 1, [sym__assignable_selector]), (STATE 1171, 1,
       [sym__assignable_selector_part]), (STATE 1944, 1,
       [aux_sym__assignable_selector_part_repeat1]), (STATE 2273, 1, [sym_type_arguments]),
       (STATE 2338, 1, [sym_selector]), (STATE 2401, 1, [sym_arguments]), (STATE 1096, 2,
       [sym_unconditional_assignable_selector, sym_conditional_assignable_selector]), (STATE
       1926, 2, [sym_comment, sym_documentation_comment]), (STATE 2385, 2,
       [sym__exclamation_operator, sym_argument_part])]),
     (101845, 24, [(ACTIONS 3, 1, [anon_sym_SLASH_SLASH]), (ACTIONS 5, 1,
       [anon_sym_SLASH_STAR]), (ACTIONS 7, 1, [anon_sym_SLASH_SLASH_SLASH]), (ACTIONS 9, 1,
       [sym__block_comment]), (ACTIONS 11, 1, [sym__documentation_block_comment]), (ACTIONS 33,
       1, [sym_void_type]), (ACTIONS 45, 1, [anon_sym_Function]), (ACTIONS 3161, 1,
       [anon_sym_LT]), (ACTIONS 4124, 1, [anon_sym_LBRACE]), (ACTIONS 4126, 1,
       [anon_sym_LBRACK]), (ACTIONS 4128, 1, [anon_sym_LPAREN]), (ACTIONS 4289, 1,
       [sym_identifier]), (STATE 979, 1, [sym__record_literal_no_const]), (STATE 1530, 1,
       [sym__type_name]), (STATE 1704, 1, [sym__function_type_tail]), (STATE 1985, 1,
       [sym_record_type]), (STATE 2099, 1, [sym__type_not_void_not_function]), (STATE 2144, 1,
       [sym__function_builtin_identifier]), (STATE 2145, 1, [sym_function_type]), (STATE 2161, 1,
       [aux_sym__function_type_tails]), (STATE 2596, 1, [sym__type_not_function]), (STATE 2657,
       1, [sym__type_not_void]), (STATE 3135, 1, [sym_type_arguments]), (STATE 1927, 2,
       [sym_comment, sym_documentation_comment])]),
     (101919, 24, [(ACTIONS 3, 1, [anon_sym_SLASH_SLASH]), (ACTIONS 5, 1,
       [anon_sym_SLASH_STAR]), (ACTIONS 7, 1, [anon_sym_SLASH_SLASH_SLASH]), (ACTIONS 9, 1,
       [sym__block_comment]), (ACTIONS 11, 1, [sym__documentation_block_comment]), (ACTIONS 17,
       1, [anon_sym_LPAREN]), (ACTIONS 33, 1, [sym_void_type]), (ACTIONS 45, 1,
       [anon_sym_Function]), (ACTIONS 143, 1, [anon_sym_AT]), (ACTIONS 3408, 1,
       [sym_identifier]), (STATE 1308, 1, [aux_sym__metadata_repeat1]), (STATE 1361, 1,
       [sym_annotation]), (STATE 1463, 1, [sym__function_builtin_identifier]), (STATE 1530, 1,
       [sym__type_name]), (STATE 1605, 1, [aux_sym__function_type_tails]), (STATE 1704, 1,
       [sym__function_type_tail]), (STATE 1796, 1, [sym__type_not_function]), (STATE 1805, 1,
       [sym_record_type]), (STATE 1848, 1, [sym_function_type]), (STATE 1896, 1,
       [sym__type_not_void_not_function]), (STATE 2088, 1, [sym__metadata]), (STATE 2822, 1,
       [sym__type]), (STATE 3056, 1, [sym_record_type_field]), (STATE 1928, 2, [sym_comment,
       sym_documentation_comment])])]"

lemma small_run_705: "small_run 1926 101775 ts_small_parse_table_705 1929 101993"
  by (simp add: small_simps ts_small_parse_table_705_def)

definition ts_small_parse_table_706 :: "small_group list" where
  "ts_small_parse_table_706 = [
     (101993, 22, [(ACTIONS 3, 1, [anon_sym_SLASH_SLASH]), (ACTIONS 5, 1,
       [anon_sym_SLASH_STAR]), (ACTIONS 7, 1, [anon_sym_SLASH_SLASH_SLASH]), (ACTIONS 9, 1,
       [sym__block_comment]), (ACTIONS 11, 1, [sym__documentation_block_comment]), (ACTIONS 119,
       1, [anon_sym_BANG]), (ACTIONS 3398, 1, [anon_sym_LPAREN]), (ACTIONS 4307, 1,
       [anon_sym_LT]), (ACTIONS 4341, 1, [anon_sym_LBRACK]), (ACTIONS 4343, 1, [anon_sym_QMARK]),
       (ACTIONS 4345, 1, [anon_sym_DOT]), (ACTIONS 4347, 1, [anon_sym_QMARK_DOT]), (STATE 1090,
       1, [sym_index_selector]), (STATE 1107, 1, [sym__assignable_selector]), (STATE 1380, 1,
       [sym__assignable_selector_part]), (STATE 1942, 1,
       [aux_sym__assignable_selector_part_repeat1]), (STATE 2273, 1, [sym_type_arguments]),
       (STATE 2338, 1, [sym_selector]), (STATE 2401, 1, [sym_arguments]), (STATE 1096, 2,
       [sym_unconditional_assignable_selector, sym_conditional_assignable_selector]), (STATE
       1929, 2, [sym_comment, sym_documentation_comment]), (STATE 2385, 2,
       [sym__exclamation_operator, sym_argument_part])]),
     (102063, 22, [(ACTIONS 3, 1, [anon_sym_SLASH_SLASH]), (ACTIONS 5, 1,
       [anon_sym_SLASH_STAR]), (ACTIONS 7, 1, [anon_sym_SLASH_SLASH_SLASH]), (ACTIONS 9, 1,
       [sym__block_comment]), (ACTIONS 11, 1, [sym__documentation_block_comment]), (ACTIONS 17,
       1, [anon_sym_LPAREN]), (ACTIONS 33, 1, [sym_void_type]), (ACTIONS 35, 1, [anon_sym_var]),
       (ACTIONS 45, 1, [anon_sym_Function]), (ACTIONS 145, 1, [anon_sym_final]), (ACTIONS 3408,
       1, [sym_identifier]), (STATE 1463, 1, [sym__function_builtin_identifier]), (STATE 1530, 1,
       [sym__type_name]), (STATE 1605, 1, [aux_sym__function_type_tails]), (STATE 1704, 1,
       [sym__function_type_tail]), (STATE 1796, 1, [sym__type_not_function]), (STATE 1805, 1,
       [sym_record_type]), (STATE 1848, 1, [sym_function_type]), (STATE 1896, 1,
       [sym__type_not_void_not_function]), (STATE 1988, 1, [sym_final_builtin]), (STATE 1930, 2,
       [sym_comment, sym_documentation_comment]), (STATE 2935, 2, [sym__type,
       sym_inferred_type])]),
     (102132, 10, [(ACTIONS 3, 1, [anon_sym_SLASH_SLASH]), (ACTIONS 5, 1,
       [anon_sym_SLASH_STAR]), (ACTIONS 7, 1, [anon_sym_SLASH_SLASH_SLASH]), (ACTIONS 9, 1,
       [sym__block_comment]), (ACTIONS 11, 1, [sym__documentation_block_comment]), (ACTIONS 4349,
       1, [sym_increment_operator]), (STATE 292, 1, [sym__assignment_operator]), (STATE 1496, 1,
       [sym_postfix_operator]), (STATE 1931, 2, [sym_comment, sym_documentation_comment]),
       (ACTIONS 1069, 14, [anon_sym_EQ, anon_sym_PLUS_EQ, anon_sym_DASH_EQ, anon_sym_STAR_EQ,
       anon_sym_SLASH_EQ, anon_sym_PERCENT_EQ, anon_sym_TILDE_SLASH_EQ, anon_sym_LT_LT_EQ,
       anon_sym_GT_GT_EQ, anon_sym_GT_GT_GT_EQ, anon_sym_AMP_EQ, anon_sym_CARET_EQ,
       anon_sym_PIPE_EQ, anon_sym_QMARK_QMARK_EQ])])]"

lemma small_run_706: "small_run 1929 101993 ts_small_parse_table_706 1932 102177"
  by (simp add: small_simps ts_small_parse_table_706_def)

definition ts_small_parse_table_707 :: "small_group list" where
  "ts_small_parse_table_707 = [
     (102177, 10, [(ACTIONS 3, 1, [anon_sym_SLASH_SLASH]), (ACTIONS 5, 1,
       [anon_sym_SLASH_STAR]), (ACTIONS 7, 1, [anon_sym_SLASH_SLASH_SLASH]), (ACTIONS 9, 1,
       [sym__block_comment]), (ACTIONS 11, 1, [sym__documentation_block_comment]), (ACTIONS 4351,
       1, [sym_increment_operator]), (STATE 210, 1, [sym__assignment_operator]), (STATE 1094, 1,
       [sym_postfix_operator]), (STATE 1932, 2, [sym_comment, sym_documentation_comment]),
       (ACTIONS 1069, 14, [anon_sym_EQ, anon_sym_PLUS_EQ, anon_sym_DASH_EQ, anon_sym_STAR_EQ,
       anon_sym_SLASH_EQ, anon_sym_PERCENT_EQ, anon_sym_TILDE_SLASH_EQ, anon_sym_LT_LT_EQ,
       anon_sym_GT_GT_EQ, anon_sym_GT_GT_GT_EQ, anon_sym_AMP_EQ, anon_sym_CARET_EQ,
       anon_sym_PIPE_EQ, anon_sym_QMARK_QMARK_EQ])]),
     (102222, 17, [(ACTIONS 3, 1, [anon_sym_SLASH_SLASH]), (ACTIONS 5, 1,
       [anon_sym_SLASH_STAR]), (ACTIONS 7, 1, [anon_sym_SLASH_SLASH_SLASH]), (ACTIONS 9, 1,
       [sym__block_comment]), (ACTIONS 11, 1, [sym__documentation_block_comment]), (ACTIONS 2015,
       1, [anon_sym_QMARK]), (ACTIONS 3692, 1, [anon_sym_DOT]), (ACTIONS 4278, 1,
       [anon_sym_LPAREN]), (ACTIONS 4280, 1, [anon_sym_LT]), (STATE 1612, 1,
       [sym__type_dot_identifier]), (STATE 2016, 1, [sym__strict_formal_parameter_list]), (STATE
       2020, 1, [sym_formal_parameter_list]), (STATE 2288, 1, [sym__formal_parameter_part]),
       (STATE 2932, 1, [sym_type_parameters]), (ACTIONS 1320, 2, [anon_sym_Function,
       sym_identifier]), (STATE 1933, 2, [sym_comment, sym_documentation_comment]), (ACTIONS
       4353, 6, [anon_sym_RBRACE, anon_sym_COMMA, anon_sym_RBRACK, anon_sym_COLON,
       anon_sym_RPAREN, anon_sym_EQ])]),
     (102281, 22, [(ACTIONS 3, 1, [anon_sym_SLASH_SLASH]), (ACTIONS 5, 1,
       [anon_sym_SLASH_STAR]), (ACTIONS 7, 1, [anon_sym_SLASH_SLASH_SLASH]), (ACTIONS 9, 1,
       [sym__block_comment]), (ACTIONS 11, 1, [sym__documentation_block_comment]), (ACTIONS 17,
       1, [anon_sym_LPAREN]), (ACTIONS 33, 1, [sym_void_type]), (ACTIONS 35, 1, [anon_sym_var]),
       (ACTIONS 45, 1, [anon_sym_Function]), (ACTIONS 145, 1, [anon_sym_final]), (ACTIONS 3408,
       1, [sym_identifier]), (STATE 1463, 1, [sym__function_builtin_identifier]), (STATE 1530, 1,
       [sym__type_name]), (STATE 1605, 1, [aux_sym__function_type_tails]), (STATE 1704, 1,
       [sym__function_type_tail]), (STATE 1796, 1, [sym__type_not_function]), (STATE 1805, 1,
       [sym_record_type]), (STATE 1848, 1, [sym_function_type]), (STATE 1896, 1,
       [sym__type_not_void_not_function]), (STATE 1981, 1, [sym_final_builtin]), (STATE 1934, 2,
       [sym_comment, sym_documentation_comment]), (STATE 2704, 2, [sym__type,
       sym_inferred_type])])]"

lemma small_run_707: "small_run 1932 102177 ts_small_parse_table_707 1935 102350"
  by (simp add: small_simps ts_small_parse_table_707_def)

definition ts_small_parse_table_708 :: "small_group list" where
  "ts_small_parse_table_708 = [
     (102350, 23, [(ACTIONS 3, 1, [anon_sym_SLASH_SLASH]), (ACTIONS 5, 1,
       [anon_sym_SLASH_STAR]), (ACTIONS 7, 1, [anon_sym_SLASH_SLASH_SLASH]), (ACTIONS 9, 1,
       [sym__block_comment]), (ACTIONS 11, 1, [sym__documentation_block_comment]), (ACTIONS 33,
       1, [sym_void_type]), (ACTIONS 45, 1, [anon_sym_Function]), (ACTIONS 3161, 1,
       [anon_sym_LT]), (ACTIONS 4289, 1, [sym_identifier]), (ACTIONS 4355, 1, [anon_sym_LBRACE]),
       (ACTIONS 4357, 1, [anon_sym_LBRACK]), (ACTIONS 4359, 1, [anon_sym_LPAREN]), (STATE 1530,
       1, [sym__type_name]), (STATE 1704, 1, [sym__function_type_tail]), (STATE 1985, 1,
       [sym_record_type]), (STATE 2099, 1, [sym__type_not_void_not_function]), (STATE 2144, 1,
       [sym__function_builtin_identifier]), (STATE 2145, 1, [sym_function_type]), (STATE 2161, 1,
       [aux_sym__function_type_tails]), (STATE 2596, 1, [sym__type_not_function]), (STATE 2611,
       1, [sym__type_not_void]), (STATE 3262, 1, [sym_type_arguments]), (STATE 1935, 2,
       [sym_comment, sym_documentation_comment])]),
     (102421, 10, [(ACTIONS 3, 1, [anon_sym_SLASH_SLASH]), (ACTIONS 5, 1,
       [anon_sym_SLASH_STAR]), (ACTIONS 7, 1, [anon_sym_SLASH_SLASH_SLASH]), (ACTIONS 9, 1,
       [sym__block_comment]), (ACTIONS 11, 1, [sym__documentation_block_comment]), (ACTIONS 4361,
       1, [sym_increment_operator]), (STATE 308, 1, [sym__assignment_operator]), (STATE 1317, 1,
       [sym_postfix_operator]), (STATE 1936, 2, [sym_comment, sym_documentation_comment]),
       (ACTIONS 1069, 14, [anon_sym_EQ, anon_sym_PLUS_EQ, anon_sym_DASH_EQ, anon_sym_STAR_EQ,
       anon_sym_SLASH_EQ, anon_sym_PERCENT_EQ, anon_sym_TILDE_SLASH_EQ, anon_sym_LT_LT_EQ,
       anon_sym_GT_GT_EQ, anon_sym_GT_GT_GT_EQ, anon_sym_AMP_EQ, anon_sym_CARET_EQ,
       anon_sym_PIPE_EQ, anon_sym_QMARK_QMARK_EQ])]),
     (102466, 21, [(ACTIONS 3, 1, [anon_sym_SLASH_SLASH]), (ACTIONS 5, 1,
       [anon_sym_SLASH_STAR]), (ACTIONS 7, 1, [anon_sym_SLASH_SLASH_SLASH]), (ACTIONS 9, 1,
       [sym__block_comment]), (ACTIONS 11, 1, [sym__documentation_block_comment]), (ACTIONS 119,
       1, [anon_sym_BANG]), (ACTIONS 3398, 1, [anon_sym_LPAREN]), (ACTIONS 4307, 1,
       [anon_sym_LT]), (ACTIONS 4333, 1, [anon_sym_LBRACK]), (ACTIONS 4335, 1, [anon_sym_QMARK]),
       (ACTIONS 4337, 1, [anon_sym_DOT]), (ACTIONS 4339, 1, [anon_sym_QMARK_DOT]), (STATE 1232,
       1, [sym_index_selector]), (STATE 1269, 1, [sym__assignable_selector]), (STATE 1945, 1,
       [aux_sym__assignable_selector_part_repeat1]), (STATE 2273, 1, [sym_type_arguments]),
       (STATE 2338, 1, [sym_selector]), (STATE 2401, 1, [sym_arguments]), (STATE 1231, 2,
       [sym_unconditional_assignable_selector, sym_conditional_assignable_selector]), (STATE
       1937, 2, [sym_comment, sym_documentation_comment]), (STATE 2385, 2,
       [sym__exclamation_operator, sym_argument_part])])]"

lemma small_run_708: "small_run 1935 102350 ts_small_parse_table_708 1938 102533"
  by (simp add: small_simps ts_small_parse_table_708_def)

definition ts_small_parse_table_709 :: "small_group list" where
  "ts_small_parse_table_709 = [
     (102533, 10, [(ACTIONS 3, 1, [anon_sym_SLASH_SLASH]), (ACTIONS 5, 1,
       [anon_sym_SLASH_STAR]), (ACTIONS 7, 1, [anon_sym_SLASH_SLASH_SLASH]), (ACTIONS 9, 1,
       [sym__block_comment]), (ACTIONS 11, 1, [sym__documentation_block_comment]), (ACTIONS 4363,
       1, [sym_increment_operator]), (STATE 280, 1, [sym__assignment_operator]), (STATE 942, 1,
       [sym_postfix_operator]), (STATE 1938, 2, [sym_comment, sym_documentation_comment]),
       (ACTIONS 1069, 14, [anon_sym_EQ, anon_sym_PLUS_EQ, anon_sym_DASH_EQ, anon_sym_STAR_EQ,
       anon_sym_SLASH_EQ, anon_sym_PERCENT_EQ, anon_sym_TILDE_SLASH_EQ, anon_sym_LT_LT_EQ,
       anon_sym_GT_GT_EQ, anon_sym_GT_GT_GT_EQ, anon_sym_AMP_EQ, anon_sym_CARET_EQ,
       anon_sym_PIPE_EQ, anon_sym_QMARK_QMARK_EQ])]),
     (102578, 10, [(ACTIONS 3, 1, [anon_sym_SLASH_SLASH]), (ACTIONS 5, 1,
       [anon_sym_SLASH_STAR]), (ACTIONS 7, 1, [anon_sym_SLASH_SLASH_SLASH]), (ACTIONS 9, 1,
       [sym__block_comment]), (ACTIONS 11, 1, [sym__documentation_block_comment]), (ACTIONS 4365,
       1, [sym_increment_operator]), (STATE 299, 1, [sym__assignment_operator]), (STATE 1378, 1,
       [sym_postfix_operator]), (STATE 1939, 2, [sym_comment, sym_documentation_comment]),
       (ACTIONS 1069, 14, [anon_sym_EQ, anon_sym_PLUS_EQ, anon_sym_DASH_EQ, anon_sym_STAR_EQ,
       anon_sym_SLASH_EQ, anon_sym_PERCENT_EQ, anon_sym_TILDE_SLASH_EQ, anon_sym_LT_LT_EQ,
       anon_sym_GT_GT_EQ, anon_sym_GT_GT_GT_EQ, anon_sym_AMP_EQ, anon_sym_CARET_EQ,
       anon_sym_PIPE_EQ, anon_sym_QMARK_QMARK_EQ])]),
     (102623, 10, [(ACTIONS 3, 1, [anon_sym_SLASH_SLASH]), (ACTIONS 5, 1,
       [anon_sym_SLASH_STAR]), (ACTIONS 7, 1, [anon_sym_SLASH_SLASH_SLASH]), (ACTIONS 9, 1,
       [sym__block_comment]), (ACTIONS 11, 1, [sym__documentation_block_comment]), (ACTIONS 4361,
       1, [sym_increment_operator]), (STATE 230, 1, [sym__assignment_operator]), (STATE 1317, 1,
       [sym_postfix_operator]), (STATE 1940, 2, [sym_comment, sym_documentation_comment]),
       (ACTIONS 1069, 14, [anon_sym_EQ, anon_sym_PLUS_EQ, anon_sym_DASH_EQ, anon_sym_STAR_EQ,
       anon_sym_SLASH_EQ, anon_sym_PERCENT_EQ, anon_sym_TILDE_SLASH_EQ, anon_sym_LT_LT_EQ,
       anon_sym_GT_GT_EQ, anon_sym_GT_GT_GT_EQ, anon_sym_AMP_EQ, anon_sym_CARET_EQ,
       anon_sym_PIPE_EQ, anon_sym_QMARK_QMARK_EQ])])]"

lemma small_run_709: "small_run 1938 102533 ts_small_parse_table_709 1941 102668"
  by (simp add: small_simps ts_small_parse_table_709_def)

definition ts_small_parse_table_710 :: "small_group list" where
  "ts_small_parse_table_710 = [
     (102668, 21, [(ACTIONS 3, 1, [anon_sym_SLASH_SLASH]), (ACTIONS 5, 1,
       [anon_sym_SLASH_STAR]), (ACTIONS 7, 1, [anon_sym_SLASH_SLASH_SLASH]), (ACTIONS 9, 1,
       [sym__block_comment]), (ACTIONS 11, 1, [sym__documentation_block_comment]), (ACTIONS 119,
       1, [anon_sym_BANG]), (ACTIONS 3398, 1, [anon_sym_LPAREN]), (ACTIONS 4303, 1,
       [anon_sym_LBRACK]), (ACTIONS 4305, 1, [anon_sym_QMARK]), (ACTIONS 4307, 1, [anon_sym_LT]),
       (ACTIONS 4309, 1, [anon_sym_DOT]), (ACTIONS 4311, 1, [anon_sym_QMARK_DOT]), (STATE 906, 1,
       [sym_index_selector]), (STATE 1009, 1, [sym__assignable_selector]), (STATE 1945, 1,
       [aux_sym__assignable_selector_part_repeat1]), (STATE 2273, 1, [sym_type_arguments]),
       (STATE 2338, 1, [sym_selector]), (STATE 2401, 1, [sym_arguments]), (STATE 907, 2,
       [sym_unconditional_assignable_selector, sym_conditional_assignable_selector]), (STATE
       1941, 2, [sym_comment, sym_documentation_comment]), (STATE 2385, 2,
       [sym__exclamation_operator, sym_argument_part])]),
     (102735, 21, [(ACTIONS 3, 1, [anon_sym_SLASH_SLASH]), (ACTIONS 5, 1,
       [anon_sym_SLASH_STAR]), (ACTIONS 7, 1, [anon_sym_SLASH_SLASH_SLASH]), (ACTIONS 9, 1,
       [sym__block_comment]), (ACTIONS 11, 1, [sym__documentation_block_comment]), (ACTIONS 119,
       1, [anon_sym_BANG]), (ACTIONS 3398, 1, [anon_sym_LPAREN]), (ACTIONS 4307, 1,
       [anon_sym_LT]), (ACTIONS 4341, 1, [anon_sym_LBRACK]), (ACTIONS 4343, 1, [anon_sym_QMARK]),
       (ACTIONS 4345, 1, [anon_sym_DOT]), (ACTIONS 4347, 1, [anon_sym_QMARK_DOT]), (STATE 1090,
       1, [sym_index_selector]), (STATE 1140, 1, [sym__assignable_selector]), (STATE 1945, 1,
       [aux_sym__assignable_selector_part_repeat1]), (STATE 2273, 1, [sym_type_arguments]),
       (STATE 2338, 1, [sym_selector]), (STATE 2401, 1, [sym_arguments]), (STATE 1096, 2,
       [sym_unconditional_assignable_selector, sym_conditional_assignable_selector]), (STATE
       1942, 2, [sym_comment, sym_documentation_comment]), (STATE 2385, 2,
       [sym__exclamation_operator, sym_argument_part])]),
     (102802, 10, [(ACTIONS 3, 1, [anon_sym_SLASH_SLASH]), (ACTIONS 5, 1,
       [anon_sym_SLASH_STAR]), (ACTIONS 7, 1, [anon_sym_SLASH_SLASH_SLASH]), (ACTIONS 9, 1,
       [sym__block_comment]), (ACTIONS 11, 1, [sym__documentation_block_comment]), (ACTIONS 4363,
       1, [sym_increment_operator]), (STATE 285, 1, [sym__assignment_operator]), (STATE 942, 1,
       [sym_postfix_operator]), (STATE 1943, 2, [sym_comment, sym_documentation_comment]),
       (ACTIONS 1069, 14, [anon_sym_EQ, anon_sym_PLUS_EQ, anon_sym_DASH_EQ, anon_sym_STAR_EQ,
       anon_sym_SLASH_EQ, anon_sym_PERCENT_EQ, anon_sym_TILDE_SLASH_EQ, anon_sym_LT_LT_EQ,
       anon_sym_GT_GT_EQ, anon_sym_GT_GT_GT_EQ, anon_sym_AMP_EQ, anon_sym_CARET_EQ,
       anon_sym_PIPE_EQ, anon_sym_QMARK_QMARK_EQ])])]"

lemma small_run_710: "small_run 1941 102668 ts_small_parse_table_710 1944 102847"
  by (simp add: small_simps ts_small_parse_table_710_def)

definition ts_small_parse_table_711 :: "small_group list" where
  "ts_small_parse_table_711 = [
     (102847, 21, [(ACTIONS 3, 1, [anon_sym_SLASH_SLASH]), (ACTIONS 5, 1,
       [anon_sym_SLASH_STAR]), (ACTIONS 7, 1, [anon_sym_SLASH_SLASH_SLASH]), (ACTIONS 9, 1,
       [sym__block_comment]), (ACTIONS 11, 1, [sym__documentation_block_comment]), (ACTIONS 119,
       1, [anon_sym_BANG]), (ACTIONS 3398, 1, [anon_sym_LPAREN]), (ACTIONS 4307, 1,
       [anon_sym_LT]), (ACTIONS 4341, 1, [anon_sym_LBRACK]), (ACTIONS 4343, 1, [anon_sym_QMARK]),
       (ACTIONS 4345, 1, [anon_sym_DOT]), (ACTIONS 4347, 1, [anon_sym_QMARK_DOT]), (STATE 1090,
       1, [sym_index_selector]), (STATE 1116, 1, [sym__assignable_selector]), (STATE 1945, 1,
       [aux_sym__assignable_selector_part_repeat1]), (STATE 2273, 1, [sym_type_arguments]),
       (STATE 2338, 1, [sym_selector]), (STATE 2401, 1, [sym_arguments]), (STATE 1096, 2,
       [sym_unconditional_assignable_selector, sym_conditional_assignable_selector]), (STATE
       1944, 2, [sym_comment, sym_documentation_comment]), (STATE 2385, 2,
       [sym__exclamation_operator, sym_argument_part])]),
     (102914, 19, [(ACTIONS 3, 1, [anon_sym_SLASH_SLASH]), (ACTIONS 5, 1,
       [anon_sym_SLASH_STAR]), (ACTIONS 7, 1, [anon_sym_SLASH_SLASH_SLASH]), (ACTIONS 9, 1,
       [sym__block_comment]), (ACTIONS 11, 1, [sym__documentation_block_comment]), (ACTIONS 4367,
       1, [anon_sym_LBRACK]), (ACTIONS 4370, 1, [anon_sym_LPAREN]), (ACTIONS 4373, 1,
       [anon_sym_QMARK]), (ACTIONS 4376, 1, [anon_sym_LT]), (ACTIONS 4379, 1, [anon_sym_BANG]),
       (ACTIONS 4382, 1, [anon_sym_DOT]), (ACTIONS 4385, 1, [anon_sym_QMARK_DOT]), (STATE 2273,
       1, [sym_type_arguments]), (STATE 2338, 1, [sym_selector]), (STATE 2401, 1,
       [sym_arguments]), (STATE 2409, 1, [sym_index_selector]), (STATE 2414, 2,
       [sym_unconditional_assignable_selector, sym_conditional_assignable_selector]), (STATE
       1945, 3, [sym_comment, sym_documentation_comment,
       aux_sym__assignable_selector_part_repeat1]), (STATE 2385, 3, [sym__exclamation_operator,
       sym_argument_part, sym__assignable_selector])]),
     (102977, 22, [(ACTIONS 3, 1, [anon_sym_SLASH_SLASH]), (ACTIONS 5, 1,
       [anon_sym_SLASH_STAR]), (ACTIONS 7, 1, [anon_sym_SLASH_SLASH_SLASH]), (ACTIONS 9, 1,
       [sym__block_comment]), (ACTIONS 11, 1, [sym__documentation_block_comment]), (ACTIONS 17,
       1, [anon_sym_LPAREN]), (ACTIONS 33, 1, [sym_void_type]), (ACTIONS 35, 1, [anon_sym_var]),
       (ACTIONS 45, 1, [anon_sym_Function]), (ACTIONS 67, 1, [anon_sym_late]), (ACTIONS 3408, 1,
       [sym_identifier]), (STATE 1463, 1, [sym__function_builtin_identifier]), (STATE 1530, 1,
       [sym__type_name]), (STATE 1605, 1, [aux_sym__function_type_tails]), (STATE 1704, 1,
       [sym__function_type_tail]), (STATE 1796, 1, [sym__type_not_function]), (STATE 1805, 1,
       [sym_record_type]), (STATE 1848, 1, [sym_function_type]), (STATE 1896, 1,
       [sym__type_not_void_not_function]), (STATE 1950, 1, [sym__late_builtin]), (STATE 1946, 2,
       [sym_comment, sym_documentation_comment]), (STATE 2799, 2, [sym__type,
       sym_inferred_type])])]"

lemma small_run_711: "small_run 1944 102847 ts_small_parse_table_711 1947 103046"
  by (simp add: small_simps ts_small_parse_table_711_def)

definition ts_small_parse_table_712 :: "small_group list" where
  "ts_small_parse_table_712 = [
     (103046, 8, [(ACTIONS 3, 1, [anon_sym_SLASH_SLASH]), (ACTIONS 5, 1,
       [anon_sym_SLASH_STAR]), (ACTIONS 7, 1, [anon_sym_SLASH_SLASH_SLASH]), (ACTIONS 9, 1,
       [sym__block_comment]), (ACTIONS 11, 1, [sym__documentation_block_comment]), (STATE 1947,
       2, [sym_comment, sym_documentation_comment]), (ACTIONS 4390, 3, [anon_sym_RBRACE,
       anon_sym_LPAREN, anon_sym_AT]), (ACTIONS 4388, 14, [anon_sym_final, sym_void_type,
       anon_sym_var, anon_sym_covariant, anon_sym_factory, anon_sym_Function, anon_sym_get,
       anon_sym_operator, anon_sym_set, anon_sym_static, sym_const_builtin, anon_sym_late,
       anon_sym_external, sym_identifier])]),
     (103087, 10, [(ACTIONS 3, 1, [anon_sym_SLASH_SLASH]), (ACTIONS 5, 1,
       [anon_sym_SLASH_STAR]), (ACTIONS 7, 1, [anon_sym_SLASH_SLASH_SLASH]), (ACTIONS 9, 1,
       [sym__block_comment]), (ACTIONS 11, 1, [sym__documentation_block_comment]), (ACTIONS 4365,
       1, [sym_increment_operator]), (STATE 297, 1, [sym__assignment_operator]), (STATE 1378, 1,
       [sym_postfix_operator]), (STATE 1948, 2, [sym_comment, sym_documentation_comment]),
       (ACTIONS 1069, 14, [anon_sym_EQ, anon_sym_PLUS_EQ, anon_sym_DASH_EQ, anon_sym_STAR_EQ,
       anon_sym_SLASH_EQ, anon_sym_PERCENT_EQ, anon_sym_TILDE_SLASH_EQ, anon_sym_LT_LT_EQ,
       anon_sym_GT_GT_EQ, anon_sym_GT_GT_GT_EQ, anon_sym_AMP_EQ, anon_sym_CARET_EQ,
       anon_sym_PIPE_EQ, anon_sym_QMARK_QMARK_EQ])]),
     (103132, 10, [(ACTIONS 3, 1, [anon_sym_SLASH_SLASH]), (ACTIONS 5, 1,
       [anon_sym_SLASH_STAR]), (ACTIONS 7, 1, [anon_sym_SLASH_SLASH_SLASH]), (ACTIONS 9, 1,
       [sym__block_comment]), (ACTIONS 11, 1, [sym__documentation_block_comment]), (ACTIONS 4363,
       1, [sym_increment_operator]), (STATE 287, 1, [sym__assignment_operator]), (STATE 942, 1,
       [sym_postfix_operator]), (STATE 1949, 2, [sym_comment, sym_documentation_comment]),
       (ACTIONS 1069, 14, [anon_sym_EQ, anon_sym_PLUS_EQ, anon_sym_DASH_EQ, anon_sym_STAR_EQ,
       anon_sym_SLASH_EQ, anon_sym_PERCENT_EQ, anon_sym_TILDE_SLASH_EQ, anon_sym_LT_LT_EQ,
       anon_sym_GT_GT_EQ, anon_sym_GT_GT_GT_EQ, anon_sym_AMP_EQ, anon_sym_CARET_EQ,
       anon_sym_PIPE_EQ, anon_sym_QMARK_QMARK_EQ])]),
     (103177, 22, [(ACTIONS 3, 1, [anon_sym_SLASH_SLASH]), (ACTIONS 5, 1,
       [anon_sym_SLASH_STAR]), (ACTIONS 7, 1, [anon_sym_SLASH_SLASH_SLASH]), (ACTIONS 9, 1,
       [sym__block_comment]), (ACTIONS 11, 1, [sym__documentation_block_comment]), (ACTIONS 17,
       1, [anon_sym_LPAREN]), (ACTIONS 33, 1, [sym_void_type]), (ACTIONS 35, 1, [anon_sym_var]),
       (ACTIONS 45, 1, [anon_sym_Function]), (ACTIONS 145, 1, [anon_sym_final]), (ACTIONS 3408,
       1, [sym_identifier]), (STATE 1463, 1, [sym__function_builtin_identifier]), (STATE 1530, 1,
       [sym__type_name]), (STATE 1605, 1, [aux_sym__function_type_tails]), (STATE 1704, 1,
       [sym__function_type_tail]), (STATE 1796, 1, [sym__type_not_function]), (STATE 1805, 1,
       [sym_record_type]), (STATE 1848, 1, [sym_function_type]), (STATE 1896, 1,
       [sym__type_not_void_not_function]), (STATE 2021, 1, [sym_final_builtin]), (STATE 1950, 2,
       [sym_comment, sym_documentation_comment]), (STATE 2935, 2, [sym__type,
       sym_inferred_type])])]"

lemma small_run_712: "small_run 1947 103046 ts_small_parse_table_712 1951 103246"
  by (simp add: small_simps ts_small_parse_table_712_def)

definition ts_small_parse_table_713 :: "small_group list" where
  "ts_small_parse_table_713 = [
     (103246, 10, [(ACTIONS 3, 1, [anon_sym_SLASH_SLASH]), (ACTIONS 5, 1,
       [anon_sym_SLASH_STAR]), (ACTIONS 7, 1, [anon_sym_SLASH_SLASH_SLASH]), (ACTIONS 9, 1,
       [sym__block_comment]), (ACTIONS 11, 1, [sym__documentation_block_comment]), (ACTIONS 4349,
       1, [sym_increment_operator]), (STATE 277, 1, [sym__assignment_operator]), (STATE 1496, 1,
       [sym_postfix_operator]), (STATE 1951, 2, [sym_comment, sym_documentation_comment]),
       (ACTIONS 1069, 14, [anon_sym_EQ, anon_sym_PLUS_EQ, anon_sym_DASH_EQ, anon_sym_STAR_EQ,
       anon_sym_SLASH_EQ, anon_sym_PERCENT_EQ, anon_sym_TILDE_SLASH_EQ, anon_sym_LT_LT_EQ,
       anon_sym_GT_GT_EQ, anon_sym_GT_GT_GT_EQ, anon_sym_AMP_EQ, anon_sym_CARET_EQ,
       anon_sym_PIPE_EQ, anon_sym_QMARK_QMARK_EQ])]),
     (103291, 10, [(ACTIONS 3, 1, [anon_sym_SLASH_SLASH]), (ACTIONS 5, 1,
       [anon_sym_SLASH_STAR]), (ACTIONS 7, 1, [anon_sym_SLASH_SLASH_SLASH]), (ACTIONS 9, 1,
       [sym__block_comment]), (ACTIONS 11, 1, [sym__documentation_block_comment]), (ACTIONS 4363,
       1, [sym_increment_operator]), (STATE 251, 1, [sym__assignment_operator]), (STATE 942, 1,
       [sym_postfix_operator]), (STATE 1952, 2, [sym_comment, sym_documentation_comment]),
       (ACTIONS 1069, 14, [anon_sym_EQ, anon_sym_PLUS_EQ, anon_sym_DASH_EQ, anon_sym_STAR_EQ,
       anon_sym_SLASH_EQ, anon_sym_PERCENT_EQ, anon_sym_TILDE_SLASH_EQ, anon_sym_LT_LT_EQ,
       anon_sym_GT_GT_EQ, anon_sym_GT_GT_GT_EQ, anon_sym_AMP_EQ, anon_sym_CARET_EQ,
       anon_sym_PIPE_EQ, anon_sym_QMARK_QMARK_EQ])]),
     (103336, 8, [(ACTIONS 3, 1, [anon_sym_SLASH_SLASH]), (ACTIONS 5, 1,
       [anon_sym_SLASH_STAR]), (ACTIONS 7, 1, [anon_sym_SLASH_SLASH_SLASH]), (ACTIONS 9, 1,
       [sym__block_comment]), (ACTIONS 11, 1, [sym__documentation_block_comment]), (STATE 1953,
       2, [sym_comment, sym_documentation_comment]), (ACTIONS 4394, 3, [anon_sym_RBRACE,
       anon_sym_LPAREN, anon_sym_AT]), (ACTIONS 4392, 14, [anon_sym_final, sym_void_type,
       anon_sym_var, anon_sym_covariant, anon_sym_factory, anon_sym_Function, anon_sym_get,
       anon_sym_operator, anon_sym_set, anon_sym_static, sym_const_builtin, anon_sym_late,
       anon_sym_external, sym_identifier])]),
     (103377, 8, [(ACTIONS 3, 1, [anon_sym_SLASH_SLASH]), (ACTIONS 5, 1,
       [anon_sym_SLASH_STAR]), (ACTIONS 7, 1, [anon_sym_SLASH_SLASH_SLASH]), (ACTIONS 9, 1,
       [sym__block_comment]), (ACTIONS 11, 1, [sym__documentation_block_comment]), (STATE 1954,
       2, [sym_comment, sym_documentation_comment]), (ACTIONS 1828, 3, [anon_sym_RBRACE,
       anon_sym_LPAREN, anon_sym_AT]), (ACTIONS 4396, 14, [anon_sym_final, sym_void_type,
       anon_sym_var, anon_sym_covariant, anon_sym_factory, anon_sym_Function, anon_sym_get,
       anon_sym_operator, anon_sym_set, anon_sym_static, sym_const_builtin, anon_sym_late,
       anon_sym_external, sym_identifier])])]"

lemma small_run_713: "small_run 1951 103246 ts_small_parse_table_713 1955 103418"
  by (simp add: small_simps ts_small_parse_table_713_def)

definition ts_small_parse_table_714 :: "small_group list" where
  "ts_small_parse_table_714 = [
     (103418, 10, [(ACTIONS 3, 1, [anon_sym_SLASH_SLASH]), (ACTIONS 5, 1,
       [anon_sym_SLASH_STAR]), (ACTIONS 7, 1, [anon_sym_SLASH_SLASH_SLASH]), (ACTIONS 9, 1,
       [sym__block_comment]), (ACTIONS 11, 1, [sym__documentation_block_comment]), (ACTIONS 4363,
       1, [sym_increment_operator]), (STATE 270, 1, [sym__assignment_operator]), (STATE 942, 1,
       [sym_postfix_operator]), (STATE 1955, 2, [sym_comment, sym_documentation_comment]),
       (ACTIONS 1069, 14, [anon_sym_EQ, anon_sym_PLUS_EQ, anon_sym_DASH_EQ, anon_sym_STAR_EQ,
       anon_sym_SLASH_EQ, anon_sym_PERCENT_EQ, anon_sym_TILDE_SLASH_EQ, anon_sym_LT_LT_EQ,
       anon_sym_GT_GT_EQ, anon_sym_GT_GT_GT_EQ, anon_sym_AMP_EQ, anon_sym_CARET_EQ,
       anon_sym_PIPE_EQ, anon_sym_QMARK_QMARK_EQ])]),
     (103463, 10, [(ACTIONS 3, 1, [anon_sym_SLASH_SLASH]), (ACTIONS 5, 1,
       [anon_sym_SLASH_STAR]), (ACTIONS 7, 1, [anon_sym_SLASH_SLASH_SLASH]), (ACTIONS 9, 1,
       [sym__block_comment]), (ACTIONS 11, 1, [sym__documentation_block_comment]), (ACTIONS 4363,
       1, [sym_increment_operator]), (STATE 207, 1, [sym__assignment_operator]), (STATE 942, 1,
       [sym_postfix_operator]), (STATE 1956, 2, [sym_comment, sym_documentation_comment]),
       (ACTIONS 1069, 14, [anon_sym_EQ, anon_sym_PLUS_EQ, anon_sym_DASH_EQ, anon_sym_STAR_EQ,
       anon_sym_SLASH_EQ, anon_sym_PERCENT_EQ, anon_sym_TILDE_SLASH_EQ, anon_sym_LT_LT_EQ,
       anon_sym_GT_GT_EQ, anon_sym_GT_GT_GT_EQ, anon_sym_AMP_EQ, anon_sym_CARET_EQ,
       anon_sym_PIPE_EQ, anon_sym_QMARK_QMARK_EQ])]),
     (103508, 22, [(ACTIONS 3, 1, [anon_sym_SLASH_SLASH]), (ACTIONS 5, 1,
       [anon_sym_SLASH_STAR]), (ACTIONS 7, 1, [anon_sym_SLASH_SLASH_SLASH]), (ACTIONS 9, 1,
       [sym__block_comment]), (ACTIONS 11, 1, [sym__documentation_block_comment]), (ACTIONS 17,
       1, [anon_sym_LPAREN]), (ACTIONS 33, 1, [sym_void_type]), (ACTIONS 35, 1, [anon_sym_var]),
       (ACTIONS 45, 1, [anon_sym_Function]), (ACTIONS 145, 1, [anon_sym_final]), (ACTIONS 3408,
       1, [sym_identifier]), (STATE 1463, 1, [sym__function_builtin_identifier]), (STATE 1530, 1,
       [sym__type_name]), (STATE 1605, 1, [aux_sym__function_type_tails]), (STATE 1704, 1,
       [sym__function_type_tail]), (STATE 1796, 1, [sym__type_not_function]), (STATE 1805, 1,
       [sym_record_type]), (STATE 1848, 1, [sym_function_type]), (STATE 1896, 1,
       [sym__type_not_void_not_function]), (STATE 1972, 1, [sym_final_builtin]), (STATE 1957, 2,
       [sym_comment, sym_documentation_comment]), (STATE 2970, 2, [sym__type,
       sym_inferred_type])])]"

lemma small_run_714: "small_run 1955 103418 ts_small_parse_table_714 1958 103577"
  by (simp add: small_simps ts_small_parse_table_714_def)

definition ts_small_parse_table_715 :: "small_group list" where
  "ts_small_parse_table_715 = [
     (103577, 21, [(ACTIONS 3, 1, [anon_sym_SLASH_SLASH]), (ACTIONS 5, 1,
       [anon_sym_SLASH_STAR]), (ACTIONS 7, 1, [anon_sym_SLASH_SLASH_SLASH]), (ACTIONS 9, 1,
       [sym__block_comment]), (ACTIONS 11, 1, [sym__documentation_block_comment]), (ACTIONS 119,
       1, [anon_sym_BANG]), (ACTIONS 3398, 1, [anon_sym_LPAREN]), (ACTIONS 4303, 1,
       [anon_sym_LBRACK]), (ACTIONS 4305, 1, [anon_sym_QMARK]), (ACTIONS 4307, 1, [anon_sym_LT]),
       (ACTIONS 4309, 1, [anon_sym_DOT]), (ACTIONS 4311, 1, [anon_sym_QMARK_DOT]), (STATE 904, 1,
       [sym__assignable_selector]), (STATE 906, 1, [sym_index_selector]), (STATE 1945, 1,
       [aux_sym__assignable_selector_part_repeat1]), (STATE 2273, 1, [sym_type_arguments]),
       (STATE 2338, 1, [sym_selector]), (STATE 2401, 1, [sym_arguments]), (STATE 907, 2,
       [sym_unconditional_assignable_selector, sym_conditional_assignable_selector]), (STATE
       1958, 2, [sym_comment, sym_documentation_comment]), (STATE 2385, 2,
       [sym__exclamation_operator, sym_argument_part])]),
     (103644, 8, [(ACTIONS 3, 1, [anon_sym_SLASH_SLASH]), (ACTIONS 5, 1,
       [anon_sym_SLASH_STAR]), (ACTIONS 7, 1, [anon_sym_SLASH_SLASH_SLASH]), (ACTIONS 9, 1,
       [sym__block_comment]), (ACTIONS 11, 1, [sym__documentation_block_comment]), (STATE 1959,
       2, [sym_comment, sym_documentation_comment]), (ACTIONS 1746, 3, [anon_sym_RBRACE,
       anon_sym_LPAREN, anon_sym_AT]), (ACTIONS 4398, 14, [anon_sym_final, sym_void_type,
       anon_sym_var, anon_sym_covariant, anon_sym_factory, anon_sym_Function, anon_sym_get,
       anon_sym_operator, anon_sym_set, anon_sym_static, sym_const_builtin, anon_sym_late,
       anon_sym_external, sym_identifier])]),
     (103685, 10, [(ACTIONS 3, 1, [anon_sym_SLASH_SLASH]), (ACTIONS 5, 1,
       [anon_sym_SLASH_STAR]), (ACTIONS 7, 1, [anon_sym_SLASH_SLASH_SLASH]), (ACTIONS 9, 1,
       [sym__block_comment]), (ACTIONS 11, 1, [sym__documentation_block_comment]), (ACTIONS 4351,
       1, [sym_increment_operator]), (STATE 274, 1, [sym__assignment_operator]), (STATE 1094, 1,
       [sym_postfix_operator]), (STATE 1960, 2, [sym_comment, sym_documentation_comment]),
       (ACTIONS 1069, 14, [anon_sym_EQ, anon_sym_PLUS_EQ, anon_sym_DASH_EQ, anon_sym_STAR_EQ,
       anon_sym_SLASH_EQ, anon_sym_PERCENT_EQ, anon_sym_TILDE_SLASH_EQ, anon_sym_LT_LT_EQ,
       anon_sym_GT_GT_EQ, anon_sym_GT_GT_GT_EQ, anon_sym_AMP_EQ, anon_sym_CARET_EQ,
       anon_sym_PIPE_EQ, anon_sym_QMARK_QMARK_EQ])])]"

lemma small_run_715: "small_run 1958 103577 ts_small_parse_table_715 1961 103730"
  by (simp add: small_simps ts_small_parse_table_715_def)

definition ts_small_parse_table_716 :: "small_group list" where
  "ts_small_parse_table_716 = [
     (103730, 22, [(ACTIONS 3, 1, [anon_sym_SLASH_SLASH]), (ACTIONS 5, 1,
       [anon_sym_SLASH_STAR]), (ACTIONS 7, 1, [anon_sym_SLASH_SLASH_SLASH]), (ACTIONS 9, 1,
       [sym__block_comment]), (ACTIONS 11, 1, [sym__documentation_block_comment]), (ACTIONS 17,
       1, [anon_sym_LPAREN]), (ACTIONS 33, 1, [sym_void_type]), (ACTIONS 45, 1,
       [anon_sym_Function]), (ACTIONS 446, 1, [anon_sym_required]), (ACTIONS 3408, 1,
       [sym_identifier]), (STATE 1463, 1, [sym__function_builtin_identifier]), (STATE 1530, 1,
       [sym__type_name]), (STATE 1605, 1, [aux_sym__function_type_tails]), (STATE 1704, 1,
       [sym__function_type_tail]), (STATE 1796, 1, [sym__type_not_function]), (STATE 1805, 1,
       [sym_record_type]), (STATE 1848, 1, [sym_function_type]), (STATE 1896, 1,
       [sym__type_not_void_not_function]), (STATE 2013, 1, [sym__required]), (STATE 3024, 1,
       [sym_typed_identifier]), (STATE 3495, 1, [sym__type]), (STATE 1961, 2, [sym_comment,
       sym_documentation_comment])]),
     (103798, 8, [(ACTIONS 3, 1, [anon_sym_SLASH_SLASH]), (ACTIONS 5, 1,
       [anon_sym_SLASH_STAR]), (ACTIONS 7, 1, [anon_sym_SLASH_SLASH_SLASH]), (ACTIONS 9, 1,
       [sym__block_comment]), (ACTIONS 11, 1, [sym__documentation_block_comment]), (STATE 1962,
       2, [sym_comment, sym_documentation_comment]), (ACTIONS 2846, 4, [anon_sym_QMARK,
       anon_sym_DOT, anon_sym_QMARK_DOT, anon_sym_async]), (ACTIONS 2844, 12, [anon_sym_LBRACE,
       anon_sym_LBRACK, anon_sym_COMMA, anon_sym_LPAREN, anon_sym_LT, anon_sym_BANG,
       anon_sym_DOT_DOT, anon_sym_QMARK_DOT_DOT, anon_sym_SEMI, anon_sym_EQ_GT,
       anon_sym_async_STAR, anon_sym_sync_STAR])]),
     (103838, 8, [(ACTIONS 3, 1, [anon_sym_SLASH_SLASH]), (ACTIONS 5, 1,
       [anon_sym_SLASH_STAR]), (ACTIONS 7, 1, [anon_sym_SLASH_SLASH_SLASH]), (ACTIONS 9, 1,
       [sym__block_comment]), (ACTIONS 11, 1, [sym__documentation_block_comment]), (STATE 1963,
       2, [sym_comment, sym_documentation_comment]), (ACTIONS 2918, 4, [anon_sym_QMARK,
       anon_sym_DOT, anon_sym_QMARK_DOT, anon_sym_async]), (ACTIONS 2916, 12, [anon_sym_LBRACE,
       anon_sym_LBRACK, anon_sym_COMMA, anon_sym_LPAREN, anon_sym_LT, anon_sym_BANG,
       anon_sym_DOT_DOT, anon_sym_QMARK_DOT_DOT, anon_sym_SEMI, anon_sym_EQ_GT,
       anon_sym_async_STAR, anon_sym_sync_STAR])]),
     (103878, 8, [(ACTIONS 3, 1, [anon_sym_SLASH_SLASH]), (ACTIONS 5, 1,
       [anon_sym_SLASH_STAR]), (ACTIONS 7, 1, [anon_sym_SLASH_SLASH_SLASH]), (ACTIONS 9, 1,
       [sym__block_comment]), (ACTIONS 11, 1, [sym__documentation_block_comment]), (STATE 1964,
       2, [sym_comment, sym_documentation_comment]), (ACTIONS 1412, 4, [anon_sym_QMARK,
       anon_sym_DOT, anon_sym_QMARK_DOT, anon_sym_async]), (ACTIONS 1410, 12, [anon_sym_LBRACE,
       anon_sym_LBRACK, anon_sym_COMMA, anon_sym_LPAREN, anon_sym_LT, anon_sym_BANG,
       anon_sym_DOT_DOT, anon_sym_QMARK_DOT_DOT, anon_sym_SEMI, anon_sym_EQ_GT,
       anon_sym_async_STAR, anon_sym_sync_STAR])])]"

lemma small_run_716: "small_run 1961 103730 ts_small_parse_table_716 1965 103918"
  by (simp add: small_simps ts_small_parse_table_716_def)

definition ts_small_parse_table_717 :: "small_group list" where
  "ts_small_parse_table_717 = [
     (103918, 8, [(ACTIONS 3, 1, [anon_sym_SLASH_SLASH]), (ACTIONS 5, 1,
       [anon_sym_SLASH_STAR]), (ACTIONS 7, 1, [anon_sym_SLASH_SLASH_SLASH]), (ACTIONS 9, 1,
       [sym__block_comment]), (ACTIONS 11, 1, [sym__documentation_block_comment]), (STATE 1965,
       2, [sym_comment, sym_documentation_comment]), (ACTIONS 1155, 4, [anon_sym_QMARK,
       anon_sym_DOT, anon_sym_QMARK_DOT, anon_sym_async]), (ACTIONS 1153, 12, [anon_sym_LBRACE,
       anon_sym_LBRACK, anon_sym_COMMA, anon_sym_LPAREN, anon_sym_LT, anon_sym_BANG,
       anon_sym_DOT_DOT, anon_sym_QMARK_DOT_DOT, anon_sym_SEMI, anon_sym_EQ_GT,
       anon_sym_async_STAR, anon_sym_sync_STAR])]),
     (103958, 8, [(ACTIONS 3, 1, [anon_sym_SLASH_SLASH]), (ACTIONS 5, 1,
       [anon_sym_SLASH_STAR]), (ACTIONS 7, 1, [anon_sym_SLASH_SLASH_SLASH]), (ACTIONS 9, 1,
       [sym__block_comment]), (ACTIONS 11, 1, [sym__documentation_block_comment]), (STATE 1966,
       2, [sym_comment, sym_documentation_comment]), (ACTIONS 3072, 4, [anon_sym_QMARK,
       anon_sym_DOT, anon_sym_QMARK_DOT, anon_sym_async]), (ACTIONS 3070, 12, [anon_sym_LBRACE,
       anon_sym_LBRACK, anon_sym_COMMA, anon_sym_LPAREN, anon_sym_LT, anon_sym_BANG,
       anon_sym_DOT_DOT, anon_sym_QMARK_DOT_DOT, anon_sym_SEMI, anon_sym_EQ_GT,
       anon_sym_async_STAR, anon_sym_sync_STAR])]),
     (103998, 8, [(ACTIONS 3, 1, [anon_sym_SLASH_SLASH]), (ACTIONS 5, 1,
       [anon_sym_SLASH_STAR]), (ACTIONS 7, 1, [anon_sym_SLASH_SLASH_SLASH]), (ACTIONS 9, 1,
       [sym__block_comment]), (ACTIONS 11, 1, [sym__documentation_block_comment]), (STATE 1967,
       2, [sym_comment, sym_documentation_comment]), (ACTIONS 2910, 4, [anon_sym_QMARK,
       anon_sym_DOT, anon_sym_QMARK_DOT, anon_sym_async]), (ACTIONS 2908, 12, [anon_sym_LBRACE,
       anon_sym_LBRACK, anon_sym_COMMA, anon_sym_LPAREN, anon_sym_LT, anon_sym_BANG,
       anon_sym_DOT_DOT, anon_sym_QMARK_DOT_DOT, anon_sym_SEMI, anon_sym_EQ_GT,
       anon_sym_async_STAR, anon_sym_sync_STAR])]),
     (104038, 8, [(ACTIONS 3, 1, [anon_sym_SLASH_SLASH]), (ACTIONS 5, 1,
       [anon_sym_SLASH_STAR]), (ACTIONS 7, 1, [anon_sym_SLASH_SLASH_SLASH]), (ACTIONS 9, 1,
       [sym__block_comment]), (ACTIONS 11, 1, [sym__documentation_block_comment]), (STATE 1968,
       2, [sym_comment, sym_documentation_comment]), (ACTIONS 2950, 4, [anon_sym_QMARK,
       anon_sym_DOT, anon_sym_QMARK_DOT, anon_sym_async]), (ACTIONS 2948, 12, [anon_sym_LBRACE,
       anon_sym_LBRACK, anon_sym_COMMA, anon_sym_LPAREN, anon_sym_LT, anon_sym_BANG,
       anon_sym_DOT_DOT, anon_sym_QMARK_DOT_DOT, anon_sym_SEMI, anon_sym_EQ_GT,
       anon_sym_async_STAR, anon_sym_sync_STAR])])]"

lemma small_run_717: "small_run 1965 103918 ts_small_parse_table_717 1969 104078"
  by (simp add: small_simps ts_small_parse_table_717_def)

definition ts_small_parse_table_718 :: "small_group list" where
  "ts_small_parse_table_718 = [
     (104078, 22, [(ACTIONS 3, 1, [anon_sym_SLASH_SLASH]), (ACTIONS 5, 1,
       [anon_sym_SLASH_STAR]), (ACTIONS 7, 1, [anon_sym_SLASH_SLASH_SLASH]), (ACTIONS 9, 1,
       [sym__block_comment]), (ACTIONS 11, 1, [sym__documentation_block_comment]), (ACTIONS 17,
       1, [anon_sym_LPAREN]), (ACTIONS 33, 1, [sym_void_type]), (ACTIONS 45, 1,
       [anon_sym_Function]), (ACTIONS 47, 1, [anon_sym_get]), (ACTIONS 3408, 1,
       [sym_identifier]), (STATE 1463, 1, [sym__function_builtin_identifier]), (STATE 1530, 1,
       [sym__type_name]), (STATE 1605, 1, [aux_sym__function_type_tails]), (STATE 1704, 1,
       [sym__function_type_tail]), (STATE 1796, 1, [sym__type_not_function]), (STATE 1805, 1,
       [sym_record_type]), (STATE 1848, 1, [sym_function_type]), (STATE 1896, 1,
       [sym__type_not_void_not_function]), (STATE 3221, 1, [sym__type]), (STATE 3369, 1,
       [sym__get]), (STATE 3520, 1, [sym_getter_signature]), (STATE 1969, 2, [sym_comment,
       sym_documentation_comment])]),
     (104146, 8, [(ACTIONS 3, 1, [anon_sym_SLASH_SLASH]), (ACTIONS 5, 1,
       [anon_sym_SLASH_STAR]), (ACTIONS 7, 1, [anon_sym_SLASH_SLASH_SLASH]), (ACTIONS 9, 1,
       [sym__block_comment]), (ACTIONS 11, 1, [sym__documentation_block_comment]), (STATE 1970,
       2, [sym_comment, sym_documentation_comment]), (ACTIONS 1071, 4, [anon_sym_QMARK,
       anon_sym_DOT, anon_sym_QMARK_DOT, anon_sym_async]), (ACTIONS 1065, 12, [anon_sym_LBRACE,
       anon_sym_LBRACK, anon_sym_COMMA, anon_sym_LPAREN, anon_sym_LT, anon_sym_BANG,
       anon_sym_DOT_DOT, anon_sym_QMARK_DOT_DOT, anon_sym_SEMI, anon_sym_EQ_GT,
       anon_sym_async_STAR, anon_sym_sync_STAR])]),
     (104186, 21, [(ACTIONS 3, 1, [anon_sym_SLASH_SLASH]), (ACTIONS 5, 1,
       [anon_sym_SLASH_STAR]), (ACTIONS 7, 1, [anon_sym_SLASH_SLASH_SLASH]), (ACTIONS 9, 1,
       [sym__block_comment]), (ACTIONS 11, 1, [sym__documentation_block_comment]), (ACTIONS 17,
       1, [anon_sym_LPAREN]), (ACTIONS 33, 1, [sym_void_type]), (ACTIONS 45, 1,
       [anon_sym_Function]), (ACTIONS 4400, 1, [sym_identifier]), (STATE 1463, 1,
       [sym__function_builtin_identifier]), (STATE 1530, 1, [sym__type_name]), (STATE 1605, 1,
       [aux_sym__function_type_tails]), (STATE 1704, 1, [sym__function_type_tail]), (STATE 1796,
       1, [sym__type_not_function]), (STATE 1805, 1, [sym_record_type]), (STATE 1848, 1,
       [sym_function_type]), (STATE 1896, 1, [sym__type_not_void_not_function]), (STATE 2713, 1,
       [sym__type]), (STATE 2916, 1, [sym_static_final_declaration]), (STATE 3264, 1,
       [sym_static_final_declaration_list]), (STATE 1971, 2, [sym_comment,
       sym_documentation_comment])])]"

lemma small_run_718: "small_run 1969 104078 ts_small_parse_table_718 1972 104251"
  by (simp add: small_simps ts_small_parse_table_718_def)

definition ts_small_parse_table_719 :: "small_group list" where
  "ts_small_parse_table_719 = [
     (104251, 21, [(ACTIONS 3, 1, [anon_sym_SLASH_SLASH]), (ACTIONS 5, 1,
       [anon_sym_SLASH_STAR]), (ACTIONS 7, 1, [anon_sym_SLASH_SLASH_SLASH]), (ACTIONS 9, 1,
       [sym__block_comment]), (ACTIONS 11, 1, [sym__documentation_block_comment]), (ACTIONS 17,
       1, [anon_sym_LPAREN]), (ACTIONS 33, 1, [sym_void_type]), (ACTIONS 45, 1,
       [anon_sym_Function]), (ACTIONS 4402, 1, [sym_identifier]), (STATE 1463, 1,
       [sym__function_builtin_identifier]), (STATE 1530, 1, [sym__type_name]), (STATE 1605, 1,
       [aux_sym__function_type_tails]), (STATE 1704, 1, [sym__function_type_tail]), (STATE 1796,
       1, [sym__type_not_function]), (STATE 1805, 1, [sym_record_type]), (STATE 1848, 1,
       [sym_function_type]), (STATE 1896, 1, [sym__type_not_void_not_function]), (STATE 2704, 1,
       [sym__type]), (STATE 2991, 1, [sym_initialized_identifier]), (STATE 3264, 1,
       [sym_initialized_identifier_list]), (STATE 1972, 2, [sym_comment,
       sym_documentation_comment])]),
     (104316, 8, [(ACTIONS 3, 1, [anon_sym_SLASH_SLASH]), (ACTIONS 5, 1,
       [anon_sym_SLASH_STAR]), (ACTIONS 7, 1, [anon_sym_SLASH_SLASH_SLASH]), (ACTIONS 9, 1,
       [sym__block_comment]), (ACTIONS 11, 1, [sym__documentation_block_comment]), (STATE 1973,
       2, [sym_comment, sym_documentation_comment]), (ACTIONS 1957, 5, [anon_sym_DQUOTE,
       anon_sym_SQUOTE, anon_sym_r_DQUOTE, anon_sym_r_SQUOTE, anon_sym_QMARK]), (ACTIONS 1959,
       10, [anon_sym_DQUOTE_DQUOTE_DQUOTE, anon_sym_SQUOTE_SQUOTE_SQUOTE,
       anon_sym_r_DQUOTE_DQUOTE_DQUOTE, anon_sym_r_SQUOTE_SQUOTE_SQUOTE, anon_sym_LBRACK,
       anon_sym_LPAREN, anon_sym_LT, anon_sym_BANG, anon_sym_DOT, anon_sym_QMARK_DOT])]),
     (104355, 8, [(ACTIONS 3, 1, [anon_sym_SLASH_SLASH]), (ACTIONS 5, 1,
       [anon_sym_SLASH_STAR]), (ACTIONS 7, 1, [anon_sym_SLASH_SLASH_SLASH]), (ACTIONS 9, 1,
       [sym__block_comment]), (ACTIONS 11, 1, [sym__documentation_block_comment]), (STATE 1974,
       2, [sym_comment, sym_documentation_comment]), (ACTIONS 1889, 5, [anon_sym_DQUOTE,
       anon_sym_SQUOTE, anon_sym_r_DQUOTE, anon_sym_r_SQUOTE, anon_sym_QMARK]), (ACTIONS 1891,
       10, [anon_sym_DQUOTE_DQUOTE_DQUOTE, anon_sym_SQUOTE_SQUOTE_SQUOTE,
       anon_sym_r_DQUOTE_DQUOTE_DQUOTE, anon_sym_r_SQUOTE_SQUOTE_SQUOTE, anon_sym_LBRACK,
       anon_sym_LPAREN, anon_sym_LT, anon_sym_BANG, anon_sym_DOT, anon_sym_QMARK_DOT])]),
     (104394, 8, [(ACTIONS 3, 1, [anon_sym_SLASH_SLASH]), (ACTIONS 5, 1,
       [anon_sym_SLASH_STAR]), (ACTIONS 7, 1, [anon_sym_SLASH_SLASH_SLASH]), (ACTIONS 9, 1,
       [sym__block_comment]), (ACTIONS 11, 1, [sym__documentation_block_comment]), (STATE 1975,
       2, [sym_comment, sym_documentation_comment]), (ACTIONS 1981, 5, [anon_sym_DQUOTE,
       anon_sym_SQUOTE, anon_sym_r_DQUOTE, anon_sym_r_SQUOTE, anon_sym_QMARK]), (ACTIONS 1983,
       10, [anon_sym_DQUOTE_DQUOTE_DQUOTE, anon_sym_SQUOTE_SQUOTE_SQUOTE,
       anon_sym_r_DQUOTE_DQUOTE_DQUOTE, anon_sym_r_SQUOTE_SQUOTE_SQUOTE, anon_sym_LBRACK,
       anon_sym_LPAREN, anon_sym_LT, anon_sym_BANG, anon_sym_DOT, anon_sym_QMARK_DOT])])]"

lemma small_run_719: "small_run 1972 104251 ts_small_parse_table_719 1976 104433"
  by (simp add: small_simps ts_small_parse_table_719_def)

definition ts_small_parse_table_720 :: "small_group list" where
  "ts_small_parse_table_720 = [
     (104433, 20, [(ACTIONS 3, 1, [anon_sym_SLASH_SLASH]), (ACTIONS 5, 1,
       [anon_sym_SLASH_STAR]), (ACTIONS 7, 1, [anon_sym_SLASH_SLASH_SLASH]), (ACTIONS 9, 1,
       [sym__block_comment]), (ACTIONS 11, 1, [sym__documentation_block_comment]), (ACTIONS 17,
       1, [anon_sym_LPAREN]), (ACTIONS 33, 1, [sym_void_type]), (ACTIONS 45, 1,
       [anon_sym_Function]), (ACTIONS 3829, 1, [sym_identifier]), (STATE 1463, 1,
       [sym__function_builtin_identifier]), (STATE 1530, 1, [sym__type_name]), (STATE 1605, 1,
       [aux_sym__function_type_tails]), (STATE 1704, 1, [sym__function_type_tail]), (STATE 1796,
       1, [sym__type_not_function]), (STATE 1805, 1, [sym_record_type]), (STATE 1848, 1,
       [sym_function_type]), (STATE 1896, 1, [sym__type_not_void_not_function]), (STATE 2965, 1,
       [sym__type]), (ACTIONS 4404, 2, [anon_sym_this, anon_sym_super]), (STATE 1976, 2,
       [sym_comment, sym_documentation_comment])]),
     (104496, 8, [(ACTIONS 3, 1, [anon_sym_SLASH_SLASH]), (ACTIONS 5, 1,
       [anon_sym_SLASH_STAR]), (ACTIONS 7, 1, [anon_sym_SLASH_SLASH_SLASH]), (ACTIONS 9, 1,
       [sym__block_comment]), (ACTIONS 11, 1, [sym__documentation_block_comment]), (STATE 1977,
       2, [sym_comment, sym_documentation_comment]), (ACTIONS 1973, 5, [anon_sym_DQUOTE,
       anon_sym_SQUOTE, anon_sym_r_DQUOTE, anon_sym_r_SQUOTE, anon_sym_QMARK]), (ACTIONS 1975,
       10, [anon_sym_DQUOTE_DQUOTE_DQUOTE, anon_sym_SQUOTE_SQUOTE_SQUOTE,
       anon_sym_r_DQUOTE_DQUOTE_DQUOTE, anon_sym_r_SQUOTE_SQUOTE_SQUOTE, anon_sym_LBRACK,
       anon_sym_LPAREN, anon_sym_LT, anon_sym_BANG, anon_sym_DOT, anon_sym_QMARK_DOT])]),
     (104535, 8, [(ACTIONS 3, 1, [anon_sym_SLASH_SLASH]), (ACTIONS 5, 1,
       [anon_sym_SLASH_STAR]), (ACTIONS 7, 1, [anon_sym_SLASH_SLASH_SLASH]), (ACTIONS 9, 1,
       [sym__block_comment]), (ACTIONS 11, 1, [sym__documentation_block_comment]), (STATE 1978,
       2, [sym_comment, sym_documentation_comment]), (ACTIONS 1969, 5, [anon_sym_DQUOTE,
       anon_sym_SQUOTE, anon_sym_r_DQUOTE, anon_sym_r_SQUOTE, anon_sym_QMARK]), (ACTIONS 1971,
       10, [anon_sym_DQUOTE_DQUOTE_DQUOTE, anon_sym_SQUOTE_SQUOTE_SQUOTE,
       anon_sym_r_DQUOTE_DQUOTE_DQUOTE, anon_sym_r_SQUOTE_SQUOTE_SQUOTE, anon_sym_LBRACK,
       anon_sym_LPAREN, anon_sym_LT, anon_sym_BANG, anon_sym_DOT, anon_sym_QMARK_DOT])]),
     (104574, 8, [(ACTIONS 3, 1, [anon_sym_SLASH_SLASH]), (ACTIONS 5, 1,
       [anon_sym_SLASH_STAR]), (ACTIONS 7, 1, [anon_sym_SLASH_SLASH_SLASH]), (ACTIONS 9, 1,
       [sym__block_comment]), (ACTIONS 11, 1, [sym__documentation_block_comment]), (STATE 1979,
       2, [sym_comment, sym_documentation_comment]), (ACTIONS 1965, 5, [anon_sym_DQUOTE,
       anon_sym_SQUOTE, anon_sym_r_DQUOTE, anon_sym_r_SQUOTE, anon_sym_QMARK]), (ACTIONS 1967,
       10, [anon_sym_DQUOTE_DQUOTE_DQUOTE, anon_sym_SQUOTE_SQUOTE_SQUOTE,
       anon_sym_r_DQUOTE_DQUOTE_DQUOTE, anon_sym_r_SQUOTE_SQUOTE_SQUOTE, anon_sym_LBRACK,
       anon_sym_LPAREN, anon_sym_LT, anon_sym_BANG, anon_sym_DOT, anon_sym_QMARK_DOT])])]"

lemma small_run_720: "small_run 1976 104433 ts_small_parse_table_720 1980 104613"
  by (simp add: small_simps ts_small_parse_table_720_def)

definition ts_small_parse_table_721 :: "small_group list" where
  "ts_small_parse_table_721 = [
     (104613, 8, [(ACTIONS 3, 1, [anon_sym_SLASH_SLASH]), (ACTIONS 5, 1,
       [anon_sym_SLASH_STAR]), (ACTIONS 7, 1, [anon_sym_SLASH_SLASH_SLASH]), (ACTIONS 9, 1,
       [sym__block_comment]), (ACTIONS 11, 1, [sym__documentation_block_comment]), (STATE 1980,
       2, [sym_comment, sym_documentation_comment]), (ACTIONS 1953, 5, [anon_sym_DQUOTE,
       anon_sym_SQUOTE, anon_sym_r_DQUOTE, anon_sym_r_SQUOTE, anon_sym_QMARK]), (ACTIONS 1955,
       10, [anon_sym_DQUOTE_DQUOTE_DQUOTE, anon_sym_SQUOTE_SQUOTE_SQUOTE,
       anon_sym_r_DQUOTE_DQUOTE_DQUOTE, anon_sym_r_SQUOTE_SQUOTE_SQUOTE, anon_sym_LBRACK,
       anon_sym_LPAREN, anon_sym_LT, anon_sym_BANG, anon_sym_DOT, anon_sym_QMARK_DOT])]),
     (104652, 21, [(ACTIONS 3, 1, [anon_sym_SLASH_SLASH]), (ACTIONS 5, 1,
       [anon_sym_SLASH_STAR]), (ACTIONS 7, 1, [anon_sym_SLASH_SLASH_SLASH]), (ACTIONS 9, 1,
       [sym__block_comment]), (ACTIONS 11, 1, [sym__documentation_block_comment]), (ACTIONS 17,
       1, [anon_sym_LPAREN]), (ACTIONS 33, 1, [sym_void_type]), (ACTIONS 45, 1,
       [anon_sym_Function]), (ACTIONS 4402, 1, [sym_identifier]), (STATE 1463, 1,
       [sym__function_builtin_identifier]), (STATE 1530, 1, [sym__type_name]), (STATE 1605, 1,
       [aux_sym__function_type_tails]), (STATE 1704, 1, [sym__function_type_tail]), (STATE 1796,
       1, [sym__type_not_function]), (STATE 1805, 1, [sym_record_type]), (STATE 1848, 1,
       [sym_function_type]), (STATE 1896, 1, [sym__type_not_void_not_function]), (STATE 2836, 1,
       [sym__type]), (STATE 2991, 1, [sym_initialized_identifier]), (STATE 3073, 1,
       [sym_initialized_identifier_list]), (STATE 1981, 2, [sym_comment,
       sym_documentation_comment])]),
     (104717, 8, [(ACTIONS 3, 1, [anon_sym_SLASH_SLASH]), (ACTIONS 5, 1,
       [anon_sym_SLASH_STAR]), (ACTIONS 7, 1, [anon_sym_SLASH_SLASH_SLASH]), (ACTIONS 9, 1,
       [sym__block_comment]), (ACTIONS 11, 1, [sym__documentation_block_comment]), (STATE 1982,
       2, [sym_comment, sym_documentation_comment]), (ACTIONS 1917, 5, [anon_sym_DQUOTE,
       anon_sym_SQUOTE, anon_sym_r_DQUOTE, anon_sym_r_SQUOTE, anon_sym_QMARK]), (ACTIONS 1919,
       10, [anon_sym_DQUOTE_DQUOTE_DQUOTE, anon_sym_SQUOTE_SQUOTE_SQUOTE,
       anon_sym_r_DQUOTE_DQUOTE_DQUOTE, anon_sym_r_SQUOTE_SQUOTE_SQUOTE, anon_sym_LBRACK,
       anon_sym_LPAREN, anon_sym_LT, anon_sym_BANG, anon_sym_DOT, anon_sym_QMARK_DOT])]),
     (104756, 21, [(ACTIONS 3, 1, [anon_sym_SLASH_SLASH]), (ACTIONS 5, 1,
       [anon_sym_SLASH_STAR]), (ACTIONS 7, 1, [anon_sym_SLASH_SLASH_SLASH]), (ACTIONS 9, 1,
       [sym__block_comment]), (ACTIONS 11, 1, [sym__documentation_block_comment]), (ACTIONS 17,
       1, [anon_sym_LPAREN]), (ACTIONS 33, 1, [sym_void_type]), (ACTIONS 45, 1,
       [anon_sym_Function]), (ACTIONS 4402, 1, [sym_identifier]), (STATE 1463, 1,
       [sym__function_builtin_identifier]), (STATE 1530, 1, [sym__type_name]), (STATE 1605, 1,
       [aux_sym__function_type_tails]), (STATE 1704, 1, [sym__function_type_tail]), (STATE 1796,
       1, [sym__type_not_function]), (STATE 1805, 1, [sym_record_type]), (STATE 1848, 1,
       [sym_function_type]), (STATE 1896, 1, [sym__type_not_void_not_function]), (STATE 2799, 1,
       [sym__type]), (STATE 2991, 1, [sym_initialized_identifier]), (STATE 3314, 1,
       [sym_initialized_identifier_list]), (STATE 1983, 2, [sym_comment,
       sym_documentation_comment])])]"

lemma small_run_721: "small_run 1980 104613 ts_small_parse_table_721 1984 104821"
  by (simp add: small_simps ts_small_parse_table_721_def)

definition ts_small_parse_table_722 :: "small_group list" where
  "ts_small_parse_table_722 = [
     (104821, 20, [(ACTIONS 3, 1, [anon_sym_SLASH_SLASH]), (ACTIONS 5, 1,
       [anon_sym_SLASH_STAR]), (ACTIONS 7, 1, [anon_sym_SLASH_SLASH_SLASH]), (ACTIONS 9, 1,
       [sym__block_comment]), (ACTIONS 11, 1, [sym__documentation_block_comment]), (ACTIONS 17,
       1, [anon_sym_LPAREN]), (ACTIONS 33, 1, [sym_void_type]), (ACTIONS 45, 1,
       [anon_sym_Function]), (ACTIONS 3956, 1, [sym_identifier]), (STATE 1463, 1,
       [sym__function_builtin_identifier]), (STATE 1530, 1, [sym__type_name]), (STATE 1605, 1,
       [aux_sym__function_type_tails]), (STATE 1704, 1, [sym__function_type_tail]), (STATE 1796,
       1, [sym__type_not_function]), (STATE 1805, 1, [sym_record_type]), (STATE 1848, 1,
       [sym_function_type]), (STATE 1896, 1, [sym__type_not_void_not_function]), (STATE 2987, 1,
       [sym__type]), (ACTIONS 4130, 2, [anon_sym_this, anon_sym_super]), (STATE 1984, 2,
       [sym_comment, sym_documentation_comment])]),
     (104884, 11, [(ACTIONS 3, 1, [anon_sym_SLASH_SLASH]), (ACTIONS 5, 1,
       [anon_sym_SLASH_STAR]), (ACTIONS 7, 1, [anon_sym_SLASH_SLASH_SLASH]), (ACTIONS 9, 1,
       [sym__block_comment]), (ACTIONS 11, 1, [sym__documentation_block_comment]), (ACTIONS 2154,
       1, [anon_sym_QMARK]), (STATE 2067, 1, [sym_nullable_type]), (STATE 1985, 2, [sym_comment,
       sym_documentation_comment]), (ACTIONS 2546, 3, [anon_sym_catch, anon_sym_with,
       anon_sym_implements]), (ACTIONS 4119, 4, [anon_sym_Function, anon_sym_this,
       anon_sym_super, sym_identifier]), (ACTIONS 2541, 6, [anon_sym_LBRACE, anon_sym_COMMA,
       anon_sym_LPAREN, anon_sym_GT, anon_sym_DOT, anon_sym_SEMI])]),
     (104929, 21, [(ACTIONS 3, 1, [anon_sym_SLASH_SLASH]), (ACTIONS 5, 1,
       [anon_sym_SLASH_STAR]), (ACTIONS 7, 1, [anon_sym_SLASH_SLASH_SLASH]), (ACTIONS 9, 1,
       [sym__block_comment]), (ACTIONS 11, 1, [sym__documentation_block_comment]), (ACTIONS 17,
       1, [anon_sym_LPAREN]), (ACTIONS 33, 1, [sym_void_type]), (ACTIONS 45, 1,
       [anon_sym_Function]), (ACTIONS 4402, 1, [sym_identifier]), (STATE 1463, 1,
       [sym__function_builtin_identifier]), (STATE 1530, 1, [sym__type_name]), (STATE 1605, 1,
       [aux_sym__function_type_tails]), (STATE 1704, 1, [sym__function_type_tail]), (STATE 1796,
       1, [sym__type_not_function]), (STATE 1805, 1, [sym_record_type]), (STATE 1848, 1,
       [sym_function_type]), (STATE 1896, 1, [sym__type_not_void_not_function]), (STATE 2935, 1,
       [sym__type]), (STATE 2991, 1, [sym_initialized_identifier]), (STATE 3520, 1,
       [sym_initialized_identifier_list]), (STATE 1986, 2, [sym_comment,
       sym_documentation_comment])])]"

lemma small_run_722: "small_run 1984 104821 ts_small_parse_table_722 1987 104994"
  by (simp add: small_simps ts_small_parse_table_722_def)

definition ts_small_parse_table_723 :: "small_group list" where
  "ts_small_parse_table_723 = [
     (104994, 21, [(ACTIONS 3, 1, [anon_sym_SLASH_SLASH]), (ACTIONS 5, 1,
       [anon_sym_SLASH_STAR]), (ACTIONS 7, 1, [anon_sym_SLASH_SLASH_SLASH]), (ACTIONS 9, 1,
       [sym__block_comment]), (ACTIONS 11, 1, [sym__documentation_block_comment]), (ACTIONS 17,
       1, [anon_sym_LPAREN]), (ACTIONS 33, 1, [sym_void_type]), (ACTIONS 45, 1,
       [anon_sym_Function]), (ACTIONS 4400, 1, [sym_identifier]), (STATE 1463, 1,
       [sym__function_builtin_identifier]), (STATE 1530, 1, [sym__type_name]), (STATE 1605, 1,
       [aux_sym__function_type_tails]), (STATE 1704, 1, [sym__function_type_tail]), (STATE 1796,
       1, [sym__type_not_function]), (STATE 1805, 1, [sym_record_type]), (STATE 1848, 1,
       [sym_function_type]), (STATE 1896, 1, [sym__type_not_void_not_function]), (STATE 2908, 1,
       [sym__type]), (STATE 2916, 1, [sym_static_final_declaration]), (STATE 3520, 1,
       [sym_static_final_declaration_list]), (STATE 1987, 2, [sym_comment,
       sym_documentation_comment])]),
     (105059, 21, [(ACTIONS 3, 1, [anon_sym_SLASH_SLASH]), (ACTIONS 5, 1,
       [anon_sym_SLASH_STAR]), (ACTIONS 7, 1, [anon_sym_SLASH_SLASH_SLASH]), (ACTIONS 9, 1,
       [sym__block_comment]), (ACTIONS 11, 1, [sym__documentation_block_comment]), (ACTIONS 17,
       1, [anon_sym_LPAREN]), (ACTIONS 33, 1, [sym_void_type]), (ACTIONS 45, 1,
       [anon_sym_Function]), (ACTIONS 4402, 1, [sym_identifier]), (STATE 1463, 1,
       [sym__function_builtin_identifier]), (STATE 1530, 1, [sym__type_name]), (STATE 1605, 1,
       [aux_sym__function_type_tails]), (STATE 1704, 1, [sym__function_type_tail]), (STATE 1796,
       1, [sym__type_not_function]), (STATE 1805, 1, [sym_record_type]), (STATE 1848, 1,
       [sym_function_type]), (STATE 1896, 1, [sym__type_not_void_not_function]), (STATE 2962, 1,
       [sym__type]), (STATE 2991, 1, [sym_initialized_identifier]), (STATE 3546, 1,
       [sym_initialized_identifier_list]), (STATE 1988, 2, [sym_comment,
       sym_documentation_comment])]),
     (105124, 21, [(ACTIONS 3, 1, [anon_sym_SLASH_SLASH]), (ACTIONS 5, 1,
       [anon_sym_SLASH_STAR]), (ACTIONS 7, 1, [anon_sym_SLASH_SLASH_SLASH]), (ACTIONS 9, 1,
       [sym__block_comment]), (ACTIONS 11, 1, [sym__documentation_block_comment]), (ACTIONS 17,
       1, [anon_sym_LPAREN]), (ACTIONS 33, 1, [sym_void_type]), (ACTIONS 45, 1,
       [anon_sym_Function]), (ACTIONS 4400, 1, [sym_identifier]), (STATE 1463, 1,
       [sym__function_builtin_identifier]), (STATE 1530, 1, [sym__type_name]), (STATE 1605, 1,
       [aux_sym__function_type_tails]), (STATE 1704, 1, [sym__function_type_tail]), (STATE 1796,
       1, [sym__type_not_function]), (STATE 1805, 1, [sym_record_type]), (STATE 1848, 1,
       [sym_function_type]), (STATE 1896, 1, [sym__type_not_void_not_function]), (STATE 2916, 1,
       [sym_static_final_declaration]), (STATE 2918, 1, [sym__type]), (STATE 3104, 1,
       [sym_static_final_declaration_list]), (STATE 1989, 2, [sym_comment,
       sym_documentation_comment])])]"

lemma small_run_723: "small_run 1987 104994 ts_small_parse_table_723 1990 105189"
  by (simp add: small_simps ts_small_parse_table_723_def)

definition ts_small_parse_table_724 :: "small_group list" where
  "ts_small_parse_table_724 = [
     (105189, 7, [(ACTIONS 3, 1, [anon_sym_SLASH_SLASH]), (ACTIONS 5, 1,
       [anon_sym_SLASH_STAR]), (ACTIONS 7, 1, [anon_sym_SLASH_SLASH_SLASH]), (ACTIONS 9, 1,
       [sym__block_comment]), (ACTIONS 11, 1, [sym__documentation_block_comment]), (STATE 1990,
       2, [sym_comment, sym_documentation_comment]), (ACTIONS 1676, 15, [anon_sym_EQ,
       anon_sym_PLUS_EQ, anon_sym_DASH_EQ, anon_sym_STAR_EQ, anon_sym_SLASH_EQ,
       anon_sym_PERCENT_EQ, anon_sym_TILDE_SLASH_EQ, anon_sym_LT_LT_EQ, anon_sym_GT_GT_EQ,
       anon_sym_GT_GT_GT_EQ, anon_sym_AMP_EQ, anon_sym_CARET_EQ, anon_sym_PIPE_EQ,
       anon_sym_QMARK_QMARK_EQ, sym_increment_operator])]),
     (105226, 8, [(ACTIONS 3, 1, [anon_sym_SLASH_SLASH]), (ACTIONS 5, 1,
       [anon_sym_SLASH_STAR]), (ACTIONS 7, 1, [anon_sym_SLASH_SLASH_SLASH]), (ACTIONS 9, 1,
       [sym__block_comment]), (ACTIONS 11, 1, [sym__documentation_block_comment]), (STATE 1991,
       2, [sym_comment, sym_documentation_comment]), (ACTIONS 1921, 5, [anon_sym_DQUOTE,
       anon_sym_SQUOTE, anon_sym_r_DQUOTE, anon_sym_r_SQUOTE, anon_sym_QMARK]), (ACTIONS 1923,
       10, [anon_sym_DQUOTE_DQUOTE_DQUOTE, anon_sym_SQUOTE_SQUOTE_SQUOTE,
       anon_sym_r_DQUOTE_DQUOTE_DQUOTE, anon_sym_r_SQUOTE_SQUOTE_SQUOTE, anon_sym_LBRACK,
       anon_sym_LPAREN, anon_sym_LT, anon_sym_BANG, anon_sym_DOT, anon_sym_QMARK_DOT])]),
     (105265, 20, [(ACTIONS 3, 1, [anon_sym_SLASH_SLASH]), (ACTIONS 5, 1,
       [anon_sym_SLASH_STAR]), (ACTIONS 7, 1, [anon_sym_SLASH_SLASH_SLASH]), (ACTIONS 9, 1,
       [sym__block_comment]), (ACTIONS 11, 1, [sym__documentation_block_comment]), (ACTIONS 17,
       1, [anon_sym_LPAREN]), (ACTIONS 33, 1, [sym_void_type]), (ACTIONS 45, 1,
       [anon_sym_Function]), (ACTIONS 4406, 1, [sym_identifier]), (STATE 1463, 1,
       [sym__function_builtin_identifier]), (STATE 1530, 1, [sym__type_name]), (STATE 1605, 1,
       [aux_sym__function_type_tails]), (STATE 1704, 1, [sym__function_type_tail]), (STATE 1796,
       1, [sym__type_not_function]), (STATE 1805, 1, [sym_record_type]), (STATE 1848, 1,
       [sym_function_type]), (STATE 1896, 1, [sym__type_not_void_not_function]), (STATE 2898, 1,
       [sym__type]), (ACTIONS 4130, 2, [anon_sym_this, anon_sym_super]), (STATE 1992, 2,
       [sym_comment, sym_documentation_comment])]),
     (105328, 20, [(ACTIONS 3, 1, [anon_sym_SLASH_SLASH]), (ACTIONS 5, 1,
       [anon_sym_SLASH_STAR]), (ACTIONS 7, 1, [anon_sym_SLASH_SLASH_SLASH]), (ACTIONS 9, 1,
       [sym__block_comment]), (ACTIONS 11, 1, [sym__documentation_block_comment]), (ACTIONS 17,
       1, [anon_sym_LPAREN]), (ACTIONS 33, 1, [sym_void_type]), (ACTIONS 45, 1,
       [anon_sym_Function]), (ACTIONS 4410, 1, [sym_identifier]), (STATE 1463, 1,
       [sym__function_builtin_identifier]), (STATE 1530, 1, [sym__type_name]), (STATE 1605, 1,
       [aux_sym__function_type_tails]), (STATE 1704, 1, [sym__function_type_tail]), (STATE 1796,
       1, [sym__type_not_function]), (STATE 1805, 1, [sym_record_type]), (STATE 1848, 1,
       [sym_function_type]), (STATE 1896, 1, [sym__type_not_void_not_function]), (STATE 2789, 1,
       [sym__type]), (ACTIONS 4413, 2, [anon_sym_this, anon_sym_super]), (STATE 1993, 2,
       [sym_comment, sym_documentation_comment])])]"

lemma small_run_724: "small_run 1990 105189 ts_small_parse_table_724 1994 105391"
  by (simp add: small_simps ts_small_parse_table_724_def)

definition ts_small_parse_table_725 :: "small_group list" where
  "ts_small_parse_table_725 = [
     (105391, 8, [(ACTIONS 3, 1, [anon_sym_SLASH_SLASH]), (ACTIONS 5, 1,
       [anon_sym_SLASH_STAR]), (ACTIONS 7, 1, [anon_sym_SLASH_SLASH_SLASH]), (ACTIONS 9, 1,
       [sym__block_comment]), (ACTIONS 11, 1, [sym__documentation_block_comment]), (STATE 1994,
       2, [sym_comment, sym_documentation_comment]), (ACTIONS 1961, 5, [anon_sym_DQUOTE,
       anon_sym_SQUOTE, anon_sym_r_DQUOTE, anon_sym_r_SQUOTE, anon_sym_QMARK]), (ACTIONS 1963,
       10, [anon_sym_DQUOTE_DQUOTE_DQUOTE, anon_sym_SQUOTE_SQUOTE_SQUOTE,
       anon_sym_r_DQUOTE_DQUOTE_DQUOTE, anon_sym_r_SQUOTE_SQUOTE_SQUOTE, anon_sym_LBRACK,
       anon_sym_LPAREN, anon_sym_LT, anon_sym_BANG, anon_sym_DOT, anon_sym_QMARK_DOT])]),
     (105430, 20, [(ACTIONS 3, 1, [anon_sym_SLASH_SLASH]), (ACTIONS 5, 1,
       [anon_sym_SLASH_STAR]), (ACTIONS 7, 1, [anon_sym_SLASH_SLASH_SLASH]), (ACTIONS 9, 1,
       [sym__block_comment]), (ACTIONS 11, 1, [sym__documentation_block_comment]), (ACTIONS 17,
       1, [anon_sym_LPAREN]), (ACTIONS 33, 1, [sym_void_type]), (ACTIONS 45, 1,
       [anon_sym_Function]), (ACTIONS 4415, 1, [sym_identifier]), (STATE 1463, 1,
       [sym__function_builtin_identifier]), (STATE 1530, 1, [sym__type_name]), (STATE 1605, 1,
       [aux_sym__function_type_tails]), (STATE 1704, 1, [sym__function_type_tail]), (STATE 1796,
       1, [sym__type_not_function]), (STATE 1805, 1, [sym_record_type]), (STATE 1848, 1,
       [sym_function_type]), (STATE 1896, 1, [sym__type_not_void_not_function]), (STATE 2965, 1,
       [sym__type]), (ACTIONS 4404, 2, [anon_sym_this, anon_sym_super]), (STATE 1995, 2,
       [sym_comment, sym_documentation_comment])]),
     (105493, 8, [(ACTIONS 3, 1, [anon_sym_SLASH_SLASH]), (ACTIONS 5, 1,
       [anon_sym_SLASH_STAR]), (ACTIONS 7, 1, [anon_sym_SLASH_SLASH_SLASH]), (ACTIONS 9, 1,
       [sym__block_comment]), (ACTIONS 11, 1, [sym__documentation_block_comment]), (STATE 1996,
       2, [sym_comment, sym_documentation_comment]), (ACTIONS 1925, 5, [anon_sym_DQUOTE,
       anon_sym_SQUOTE, anon_sym_r_DQUOTE, anon_sym_r_SQUOTE, anon_sym_QMARK]), (ACTIONS 1927,
       10, [anon_sym_DQUOTE_DQUOTE_DQUOTE, anon_sym_SQUOTE_SQUOTE_SQUOTE,
       anon_sym_r_DQUOTE_DQUOTE_DQUOTE, anon_sym_r_SQUOTE_SQUOTE_SQUOTE, anon_sym_LBRACK,
       anon_sym_LPAREN, anon_sym_LT, anon_sym_BANG, anon_sym_DOT, anon_sym_QMARK_DOT])]),
     (105532, 8, [(ACTIONS 3, 1, [anon_sym_SLASH_SLASH]), (ACTIONS 5, 1,
       [anon_sym_SLASH_STAR]), (ACTIONS 7, 1, [anon_sym_SLASH_SLASH_SLASH]), (ACTIONS 9, 1,
       [sym__block_comment]), (ACTIONS 11, 1, [sym__documentation_block_comment]), (STATE 1997,
       2, [sym_comment, sym_documentation_comment]), (ACTIONS 1985, 5, [anon_sym_DQUOTE,
       anon_sym_SQUOTE, anon_sym_r_DQUOTE, anon_sym_r_SQUOTE, anon_sym_QMARK]), (ACTIONS 1987,
       10, [anon_sym_DQUOTE_DQUOTE_DQUOTE, anon_sym_SQUOTE_SQUOTE_SQUOTE,
       anon_sym_r_DQUOTE_DQUOTE_DQUOTE, anon_sym_r_SQUOTE_SQUOTE_SQUOTE, anon_sym_LBRACK,
       anon_sym_LPAREN, anon_sym_LT, anon_sym_BANG, anon_sym_DOT, anon_sym_QMARK_DOT])])]"

lemma small_run_725: "small_run 1994 105391 ts_small_parse_table_725 1998 105571"
  by (simp add: small_simps ts_small_parse_table_725_def)

definition ts_small_parse_table_726 :: "small_group list" where
  "ts_small_parse_table_726 = [
     (105571, 8, [(ACTIONS 3, 1, [anon_sym_SLASH_SLASH]), (ACTIONS 5, 1,
       [anon_sym_SLASH_STAR]), (ACTIONS 7, 1, [anon_sym_SLASH_SLASH_SLASH]), (ACTIONS 9, 1,
       [sym__block_comment]), (ACTIONS 11, 1, [sym__documentation_block_comment]), (STATE 1998,
       2, [sym_comment, sym_documentation_comment]), (ACTIONS 1929, 5, [anon_sym_DQUOTE,
       anon_sym_SQUOTE, anon_sym_r_DQUOTE, anon_sym_r_SQUOTE, anon_sym_QMARK]), (ACTIONS 1931,
       10, [anon_sym_DQUOTE_DQUOTE_DQUOTE, anon_sym_SQUOTE_SQUOTE_SQUOTE,
       anon_sym_r_DQUOTE_DQUOTE_DQUOTE, anon_sym_r_SQUOTE_SQUOTE_SQUOTE, anon_sym_LBRACK,
       anon_sym_LPAREN, anon_sym_LT, anon_sym_BANG, anon_sym_DOT, anon_sym_QMARK_DOT])]),
     (105610, 8, [(ACTIONS 3, 1, [anon_sym_SLASH_SLASH]), (ACTIONS 5, 1,
       [anon_sym_SLASH_STAR]), (ACTIONS 7, 1, [anon_sym_SLASH_SLASH_SLASH]), (ACTIONS 9, 1,
       [sym__block_comment]), (ACTIONS 11, 1, [sym__documentation_block_comment]), (STATE 1999,
       2, [sym_comment, sym_documentation_comment]), (ACTIONS 1945, 5, [anon_sym_DQUOTE,
       anon_sym_SQUOTE, anon_sym_r_DQUOTE, anon_sym_r_SQUOTE, anon_sym_QMARK]), (ACTIONS 1947,
       10, [anon_sym_DQUOTE_DQUOTE_DQUOTE, anon_sym_SQUOTE_SQUOTE_SQUOTE,
       anon_sym_r_DQUOTE_DQUOTE_DQUOTE, anon_sym_r_SQUOTE_SQUOTE_SQUOTE, anon_sym_LBRACK,
       anon_sym_LPAREN, anon_sym_LT, anon_sym_BANG, anon_sym_DOT, anon_sym_QMARK_DOT])]),
     (105649, 17, [(ACTIONS 3, 1, [anon_sym_SLASH_SLASH]), (ACTIONS 5, 1,
       [anon_sym_SLASH_STAR]), (ACTIONS 7, 1, [anon_sym_SLASH_SLASH_SLASH]), (ACTIONS 9, 1,
       [sym__block_comment]), (ACTIONS 11, 1, [sym__documentation_block_comment]), (ACTIONS 2015,
       1, [anon_sym_QMARK]), (ACTIONS 3692, 1, [anon_sym_DOT]), (ACTIONS 4278, 1,
       [anon_sym_LPAREN]), (ACTIONS 4280, 1, [anon_sym_LT]), (STATE 1612, 1,
       [sym__type_dot_identifier]), (STATE 2016, 1, [sym__strict_formal_parameter_list]), (STATE
       2020, 1, [sym_formal_parameter_list]), (STATE 2275, 1, [sym__formal_parameter_part]),
       (STATE 2932, 1, [sym_type_parameters]), (ACTIONS 4419, 2, [anon_sym_COMMA,
       anon_sym_RPAREN]), (STATE 2000, 2, [sym_comment, sym_documentation_comment]), (ACTIONS
       1320, 4, [anon_sym_Function, anon_sym_this, anon_sym_super, sym_identifier])]),
     (105706, 8, [(ACTIONS 3, 1, [anon_sym_SLASH_SLASH]), (ACTIONS 5, 1,
       [anon_sym_SLASH_STAR]), (ACTIONS 7, 1, [anon_sym_SLASH_SLASH_SLASH]), (ACTIONS 9, 1,
       [sym__block_comment]), (ACTIONS 11, 1, [sym__documentation_block_comment]), (STATE 2001,
       2, [sym_comment, sym_documentation_comment]), (ACTIONS 1977, 5, [anon_sym_DQUOTE,
       anon_sym_SQUOTE, anon_sym_r_DQUOTE, anon_sym_r_SQUOTE, anon_sym_QMARK]), (ACTIONS 1979,
       10, [anon_sym_DQUOTE_DQUOTE_DQUOTE, anon_sym_SQUOTE_SQUOTE_SQUOTE,
       anon_sym_r_DQUOTE_DQUOTE_DQUOTE, anon_sym_r_SQUOTE_SQUOTE_SQUOTE, anon_sym_LBRACK,
       anon_sym_LPAREN, anon_sym_LT, anon_sym_BANG, anon_sym_DOT, anon_sym_QMARK_DOT])])]"

lemma small_run_726: "small_run 1998 105571 ts_small_parse_table_726 2002 105745"
  by (simp add: small_simps ts_small_parse_table_726_def)

definition ts_small_parse_table_727 :: "small_group list" where
  "ts_small_parse_table_727 = [
     (105745, 8, [(ACTIONS 3, 1, [anon_sym_SLASH_SLASH]), (ACTIONS 5, 1,
       [anon_sym_SLASH_STAR]), (ACTIONS 7, 1, [anon_sym_SLASH_SLASH_SLASH]), (ACTIONS 9, 1,
       [sym__block_comment]), (ACTIONS 11, 1, [sym__documentation_block_comment]), (STATE 2002,
       2, [sym_comment, sym_documentation_comment]), (ACTIONS 1949, 5, [anon_sym_DQUOTE,
       anon_sym_SQUOTE, anon_sym_r_DQUOTE, anon_sym_r_SQUOTE, anon_sym_QMARK]), (ACTIONS 1951,
       10, [anon_sym_DQUOTE_DQUOTE_DQUOTE, anon_sym_SQUOTE_SQUOTE_SQUOTE,
       anon_sym_r_DQUOTE_DQUOTE_DQUOTE, anon_sym_r_SQUOTE_SQUOTE_SQUOTE, anon_sym_LBRACK,
       anon_sym_LPAREN, anon_sym_LT, anon_sym_BANG, anon_sym_DOT, anon_sym_QMARK_DOT])]),
     (105784, 8, [(ACTIONS 3, 1, [anon_sym_SLASH_SLASH]), (ACTIONS 5, 1,
       [anon_sym_SLASH_STAR]), (ACTIONS 7, 1, [anon_sym_SLASH_SLASH_SLASH]), (ACTIONS 9, 1,
       [sym__block_comment]), (ACTIONS 11, 1, [sym__documentation_block_comment]), (STATE 2003,
       2, [sym_comment, sym_documentation_comment]), (ACTIONS 1989, 5, [anon_sym_DQUOTE,
       anon_sym_SQUOTE, anon_sym_r_DQUOTE, anon_sym_r_SQUOTE, anon_sym_QMARK]), (ACTIONS 1991,
       10, [anon_sym_DQUOTE_DQUOTE_DQUOTE, anon_sym_SQUOTE_SQUOTE_SQUOTE,
       anon_sym_r_DQUOTE_DQUOTE_DQUOTE, anon_sym_r_SQUOTE_SQUOTE_SQUOTE, anon_sym_LBRACK,
       anon_sym_LPAREN, anon_sym_LT, anon_sym_BANG, anon_sym_DOT, anon_sym_QMARK_DOT])]),
     (105823, 14, [(ACTIONS 3, 1, [anon_sym_SLASH_SLASH]), (ACTIONS 5, 1,
       [anon_sym_SLASH_STAR]), (ACTIONS 7, 1, [anon_sym_SLASH_SLASH_SLASH]), (ACTIONS 9, 1,
       [sym__block_comment]), (ACTIONS 11, 1, [sym__documentation_block_comment]), (ACTIONS 2154,
       1, [anon_sym_QMARK]), (ACTIONS 3161, 1, [anon_sym_LT]), (ACTIONS 4422, 1,
       [anon_sym_LPAREN]), (ACTIONS 4424, 1, [anon_sym_DOT]), (STATE 1718, 1,
       [sym_nullable_type]), (STATE 2117, 1, [sym_type_arguments]), (ACTIONS 2531, 2,
       [anon_sym_COMMA, anon_sym_RPAREN]), (STATE 2004, 2, [sym_comment,
       sym_documentation_comment]), (ACTIONS 2539, 6, [anon_sym_Function, anon_sym_get,
       anon_sym_set, anon_sym_this, anon_sym_super, sym_identifier])]),
     (105873, 20, [(ACTIONS 3, 1, [anon_sym_SLASH_SLASH]), (ACTIONS 5, 1,
       [anon_sym_SLASH_STAR]), (ACTIONS 7, 1, [anon_sym_SLASH_SLASH_SLASH]), (ACTIONS 9, 1,
       [sym__block_comment]), (ACTIONS 11, 1, [sym__documentation_block_comment]), (ACTIONS 17,
       1, [anon_sym_LPAREN]), (ACTIONS 33, 1, [sym_void_type]), (ACTIONS 45, 1,
       [anon_sym_Function]), (ACTIONS 3408, 1, [sym_identifier]), (STATE 1463, 1,
       [sym__function_builtin_identifier]), (STATE 1530, 1, [sym__type_name]), (STATE 1605, 1,
       [aux_sym__function_type_tails]), (STATE 1704, 1, [sym__function_type_tail]), (STATE 1985,
       1, [sym_record_type]), (STATE 2099, 1, [sym__type_not_void_not_function]), (STATE 2145, 1,
       [sym_function_type]), (STATE 2547, 1, [sym__type_not_void_list]), (STATE 2554, 1,
       [sym__type_not_void]), (STATE 2633, 1, [sym__type_not_function]), (STATE 2005, 2,
       [sym_comment, sym_documentation_comment])])]"

lemma small_run_727: "small_run 2002 105745 ts_small_parse_table_727 2006 105935"
  by (simp add: small_simps ts_small_parse_table_727_def)

definition ts_small_parse_table_728 :: "small_group list" where
  "ts_small_parse_table_728 = [
     (105935, 20, [(ACTIONS 3, 1, [anon_sym_SLASH_SLASH]), (ACTIONS 5, 1,
       [anon_sym_SLASH_STAR]), (ACTIONS 7, 1, [anon_sym_SLASH_SLASH_SLASH]), (ACTIONS 9, 1,
       [sym__block_comment]), (ACTIONS 11, 1, [sym__documentation_block_comment]), (ACTIONS 17,
       1, [anon_sym_LPAREN]), (ACTIONS 33, 1, [sym_void_type]), (ACTIONS 45, 1,
       [anon_sym_Function]), (ACTIONS 3408, 1, [sym_identifier]), (STATE 1463, 1,
       [sym__function_builtin_identifier]), (STATE 1530, 1, [sym__type_name]), (STATE 1605, 1,
       [aux_sym__function_type_tails]), (STATE 1704, 1, [sym__function_type_tail]), (STATE 1985,
       1, [sym_record_type]), (STATE 2099, 1, [sym__type_not_void_not_function]), (STATE 2145, 1,
       [sym_function_type]), (STATE 2633, 1, [sym__type_not_function]), (STATE 3057, 1,
       [sym_mixin_application]), (STATE 3058, 1, [sym__type_not_void]), (STATE 2006, 2,
       [sym_comment, sym_documentation_comment])]),
     (105997, 20, [(ACTIONS 3, 1, [anon_sym_SLASH_SLASH]), (ACTIONS 5, 1,
       [anon_sym_SLASH_STAR]), (ACTIONS 7, 1, [anon_sym_SLASH_SLASH_SLASH]), (ACTIONS 9, 1,
       [sym__block_comment]), (ACTIONS 11, 1, [sym__documentation_block_comment]), (ACTIONS 17,
       1, [anon_sym_LPAREN]), (ACTIONS 33, 1, [sym_void_type]), (ACTIONS 45, 1,
       [anon_sym_Function]), (ACTIONS 3408, 1, [sym_identifier]), (STATE 1463, 1,
       [sym__function_builtin_identifier]), (STATE 1530, 1, [sym__type_name]), (STATE 1605, 1,
       [aux_sym__function_type_tails]), (STATE 1704, 1, [sym__function_type_tail]), (STATE 1796,
       1, [sym__type_not_function]), (STATE 1805, 1, [sym_record_type]), (STATE 1848, 1,
       [sym_function_type]), (STATE 1896, 1, [sym__type_not_void_not_function]), (STATE 3024, 1,
       [sym_typed_identifier]), (STATE 3495, 1, [sym__type]), (STATE 2007, 2, [sym_comment,
       sym_documentation_comment])]),
     (106059, 8, [(ACTIONS 3, 1, [anon_sym_SLASH_SLASH]), (ACTIONS 5, 1,
       [anon_sym_SLASH_STAR]), (ACTIONS 7, 1, [anon_sym_SLASH_SLASH_SLASH]), (ACTIONS 9, 1,
       [sym__block_comment]), (ACTIONS 11, 1, [sym__documentation_block_comment]), (ACTIONS 4428,
       2, [anon_sym_EQ, anon_sym_async]), (STATE 2008, 2, [sym_comment,
       sym_documentation_comment]), (ACTIONS 4426, 12, [anon_sym_LBRACE, anon_sym_RBRACE,
       anon_sym_COMMA, anon_sym_RBRACK, anon_sym_COLON, anon_sym_RPAREN, anon_sym_QMARK,
       anon_sym_SEMI, anon_sym_EQ_GT, anon_sym_async_STAR, anon_sym_sync_STAR,
       anon_sym_native])]),
     (106097, 8, [(ACTIONS 3, 1, [anon_sym_SLASH_SLASH]), (ACTIONS 5, 1,
       [anon_sym_SLASH_STAR]), (ACTIONS 7, 1, [anon_sym_SLASH_SLASH_SLASH]), (ACTIONS 9, 1,
       [sym__block_comment]), (ACTIONS 11, 1, [sym__documentation_block_comment]), (ACTIONS 4432,
       2, [anon_sym_EQ, anon_sym_async]), (STATE 2009, 2, [sym_comment,
       sym_documentation_comment]), (ACTIONS 4430, 12, [anon_sym_LBRACE, anon_sym_RBRACE,
       anon_sym_COMMA, anon_sym_RBRACK, anon_sym_COLON, anon_sym_RPAREN, anon_sym_QMARK,
       anon_sym_SEMI, anon_sym_EQ_GT, anon_sym_async_STAR, anon_sym_sync_STAR,
       anon_sym_native])])]"

lemma small_run_728: "small_run 2006 105935 ts_small_parse_table_728 2010 106135"
  by (simp add: small_simps ts_small_parse_table_728_def)

definition ts_small_parse_table_729 :: "small_group list" where
  "ts_small_parse_table_729 = [
     (106135, 20, [(ACTIONS 3, 1, [anon_sym_SLASH_SLASH]), (ACTIONS 5, 1,
       [anon_sym_SLASH_STAR]), (ACTIONS 7, 1, [anon_sym_SLASH_SLASH_SLASH]), (ACTIONS 9, 1,
       [sym__block_comment]), (ACTIONS 11, 1, [sym__documentation_block_comment]), (ACTIONS 17,
       1, [anon_sym_LPAREN]), (ACTIONS 33, 1, [sym_void_type]), (ACTIONS 45, 1,
       [anon_sym_Function]), (ACTIONS 3408, 1, [sym_identifier]), (ACTIONS 4434, 1,
       [anon_sym_GT]), (STATE 1463, 1, [sym__function_builtin_identifier]), (STATE 1530, 1,
       [sym__type_name]), (STATE 1605, 1, [aux_sym__function_type_tails]), (STATE 1704, 1,
       [sym__function_type_tail]), (STATE 1796, 1, [sym__type_not_function]), (STATE 1805, 1,
       [sym_record_type]), (STATE 1848, 1, [sym_function_type]), (STATE 1896, 1,
       [sym__type_not_void_not_function]), (STATE 2960, 1, [sym__type]), (STATE 2010, 2,
       [sym_comment, sym_documentation_comment])]),
     (106197, 8, [(ACTIONS 3, 1, [anon_sym_SLASH_SLASH]), (ACTIONS 5, 1,
       [anon_sym_SLASH_STAR]), (ACTIONS 7, 1, [anon_sym_SLASH_SLASH_SLASH]), (ACTIONS 9, 1,
       [sym__block_comment]), (ACTIONS 11, 1, [sym__documentation_block_comment]), (ACTIONS 4438,
       2, [anon_sym_EQ, anon_sym_async]), (STATE 2011, 2, [sym_comment,
       sym_documentation_comment]), (ACTIONS 4436, 12, [anon_sym_LBRACE, anon_sym_RBRACE,
       anon_sym_COMMA, anon_sym_RBRACK, anon_sym_COLON, anon_sym_RPAREN, anon_sym_QMARK,
       anon_sym_SEMI, anon_sym_EQ_GT, anon_sym_async_STAR, anon_sym_sync_STAR,
       anon_sym_native])]),
     (106235, 8, [(ACTIONS 3, 1, [anon_sym_SLASH_SLASH]), (ACTIONS 5, 1,
       [anon_sym_SLASH_STAR]), (ACTIONS 7, 1, [anon_sym_SLASH_SLASH_SLASH]), (ACTIONS 9, 1,
       [sym__block_comment]), (ACTIONS 11, 1, [sym__documentation_block_comment]), (ACTIONS 4442,
       1, [anon_sym_EQ]), (STATE 2012, 2, [sym_comment, sym_documentation_comment]), (ACTIONS
       4440, 13, [anon_sym_RBRACE, anon_sym_COMMA, anon_sym_RBRACK, anon_sym_COLON,
       anon_sym_RPAREN, anon_sym_QMARK, anon_sym_BANG, anon_sym_as, anon_sym_EQ_GT,
       anon_sym_when, anon_sym_in, anon_sym_AMP_AMP, anon_sym_PIPE_PIPE])]),
     (106273, 20, [(ACTIONS 3, 1, [anon_sym_SLASH_SLASH]), (ACTIONS 5, 1,
       [anon_sym_SLASH_STAR]), (ACTIONS 7, 1, [anon_sym_SLASH_SLASH_SLASH]), (ACTIONS 9, 1,
       [sym__block_comment]), (ACTIONS 11, 1, [sym__documentation_block_comment]), (ACTIONS 17,
       1, [anon_sym_LPAREN]), (ACTIONS 33, 1, [sym_void_type]), (ACTIONS 45, 1,
       [anon_sym_Function]), (ACTIONS 3408, 1, [sym_identifier]), (STATE 1463, 1,
       [sym__function_builtin_identifier]), (STATE 1530, 1, [sym__type_name]), (STATE 1605, 1,
       [aux_sym__function_type_tails]), (STATE 1704, 1, [sym__function_type_tail]), (STATE 1796,
       1, [sym__type_not_function]), (STATE 1805, 1, [sym_record_type]), (STATE 1848, 1,
       [sym_function_type]), (STATE 1896, 1, [sym__type_not_void_not_function]), (STATE 3016, 1,
       [sym_typed_identifier]), (STATE 3495, 1, [sym__type]), (STATE 2013, 2, [sym_comment,
       sym_documentation_comment])])]"

lemma small_run_729: "small_run 2010 106135 ts_small_parse_table_729 2014 106335"
  by (simp add: small_simps ts_small_parse_table_729_def)

definition ts_small_parse_table_730 :: "small_group list" where
  "ts_small_parse_table_730 = [
     (106335, 8, [(ACTIONS 3, 1, [anon_sym_SLASH_SLASH]), (ACTIONS 5, 1,
       [anon_sym_SLASH_STAR]), (ACTIONS 7, 1, [anon_sym_SLASH_SLASH_SLASH]), (ACTIONS 9, 1,
       [sym__block_comment]), (ACTIONS 11, 1, [sym__documentation_block_comment]), (ACTIONS 4446,
       1, [anon_sym_EQ]), (STATE 2014, 2, [sym_comment, sym_documentation_comment]), (ACTIONS
       4444, 13, [anon_sym_RBRACE, anon_sym_COMMA, anon_sym_RBRACK, anon_sym_COLON,
       anon_sym_RPAREN, anon_sym_QMARK, anon_sym_BANG, anon_sym_as, anon_sym_EQ_GT,
       anon_sym_when, anon_sym_in, anon_sym_AMP_AMP, anon_sym_PIPE_PIPE])]),
     (106373, 8, [(ACTIONS 3, 1, [anon_sym_SLASH_SLASH]), (ACTIONS 5, 1,
       [anon_sym_SLASH_STAR]), (ACTIONS 7, 1, [anon_sym_SLASH_SLASH_SLASH]), (ACTIONS 9, 1,
       [sym__block_comment]), (ACTIONS 11, 1, [sym__documentation_block_comment]), (ACTIONS 4450,
       1, [anon_sym_EQ]), (STATE 2015, 2, [sym_comment, sym_documentation_comment]), (ACTIONS
       4448, 13, [anon_sym_RBRACE, anon_sym_COMMA, anon_sym_RBRACK, anon_sym_COLON,
       anon_sym_RPAREN, anon_sym_QMARK, anon_sym_BANG, anon_sym_as, anon_sym_EQ_GT,
       anon_sym_when, anon_sym_in, anon_sym_AMP_AMP, anon_sym_PIPE_PIPE])]),
     (106411, 8, [(ACTIONS 3, 1, [anon_sym_SLASH_SLASH]), (ACTIONS 5, 1,
       [anon_sym_SLASH_STAR]), (ACTIONS 7, 1, [anon_sym_SLASH_SLASH_SLASH]), (ACTIONS 9, 1,
       [sym__block_comment]), (ACTIONS 11, 1, [sym__documentation_block_comment]), (ACTIONS 4454,
       2, [anon_sym_EQ, anon_sym_async]), (STATE 2016, 2, [sym_comment,
       sym_documentation_comment]), (ACTIONS 4452, 12, [anon_sym_LBRACE, anon_sym_RBRACE,
       anon_sym_COMMA, anon_sym_RBRACK, anon_sym_COLON, anon_sym_RPAREN, anon_sym_QMARK,
       anon_sym_SEMI, anon_sym_EQ_GT, anon_sym_async_STAR, anon_sym_sync_STAR,
       anon_sym_native])]),
     (106449, 8, [(ACTIONS 3, 1, [anon_sym_SLASH_SLASH]), (ACTIONS 5, 1,
       [anon_sym_SLASH_STAR]), (ACTIONS 7, 1, [anon_sym_SLASH_SLASH_SLASH]), (ACTIONS 9, 1,
       [sym__block_comment]), (ACTIONS 11, 1, [sym__documentation_block_comment]), (ACTIONS 4458,
       1, [anon_sym_EQ]), (STATE 2017, 2, [sym_comment, sym_documentation_comment]), (ACTIONS
       4456, 13, [anon_sym_RBRACE, anon_sym_COMMA, anon_sym_RBRACK, anon_sym_COLON,
       anon_sym_RPAREN, anon_sym_QMARK, anon_sym_BANG, anon_sym_as, anon_sym_EQ_GT,
       anon_sym_when, anon_sym_in, anon_sym_AMP_AMP, anon_sym_PIPE_PIPE])])]"

lemma small_run_730: "small_run 2014 106335 ts_small_parse_table_730 2018 106487"
  by (simp add: small_simps ts_small_parse_table_730_def)

definition ts_small_parse_table_731 :: "small_group list" where
  "ts_small_parse_table_731 = [
     (106487, 9, [(ACTIONS 3, 1, [anon_sym_SLASH_SLASH]), (ACTIONS 5, 1,
       [anon_sym_SLASH_STAR]), (ACTIONS 7, 1, [anon_sym_SLASH_SLASH_SLASH]), (ACTIONS 9, 1,
       [sym__block_comment]), (ACTIONS 11, 1, [sym__documentation_block_comment]), (ACTIONS 4324,
       1, [anon_sym_DOT]), (STATE 1612, 1, [sym__type_dot_identifier]), (STATE 2018, 2,
       [sym_comment, sym_documentation_comment]), (ACTIONS 4460, 12, [anon_sym_RBRACE,
       anon_sym_COMMA, anon_sym_RBRACK, anon_sym_COLON, anon_sym_RPAREN, anon_sym_QMARK,
       anon_sym_BANG, anon_sym_as, anon_sym_EQ_GT, anon_sym_when, anon_sym_AMP_AMP,
       anon_sym_PIPE_PIPE])]),
     (106527, 20, [(ACTIONS 3, 1, [anon_sym_SLASH_SLASH]), (ACTIONS 5, 1,
       [anon_sym_SLASH_STAR]), (ACTIONS 7, 1, [anon_sym_SLASH_SLASH_SLASH]), (ACTIONS 9, 1,
       [sym__block_comment]), (ACTIONS 11, 1, [sym__documentation_block_comment]), (ACTIONS 17,
       1, [anon_sym_LPAREN]), (ACTIONS 33, 1, [sym_void_type]), (ACTIONS 45, 1,
       [anon_sym_Function]), (ACTIONS 3408, 1, [sym_identifier]), (ACTIONS 4462, 1,
       [anon_sym_GT]), (STATE 1463, 1, [sym__function_builtin_identifier]), (STATE 1530, 1,
       [sym__type_name]), (STATE 1605, 1, [aux_sym__function_type_tails]), (STATE 1704, 1,
       [sym__function_type_tail]), (STATE 1796, 1, [sym__type_not_function]), (STATE 1805, 1,
       [sym_record_type]), (STATE 1848, 1, [sym_function_type]), (STATE 1896, 1,
       [sym__type_not_void_not_function]), (STATE 2833, 1, [sym__type]), (STATE 2019, 2,
       [sym_comment, sym_documentation_comment])]),
     (106589, 8, [(ACTIONS 3, 1, [anon_sym_SLASH_SLASH]), (ACTIONS 5, 1,
       [anon_sym_SLASH_STAR]), (ACTIONS 7, 1, [anon_sym_SLASH_SLASH_SLASH]), (ACTIONS 9, 1,
       [sym__block_comment]), (ACTIONS 11, 1, [sym__documentation_block_comment]), (ACTIONS 4466,
       2, [anon_sym_EQ, anon_sym_async]), (STATE 2020, 2, [sym_comment,
       sym_documentation_comment]), (ACTIONS 4464, 12, [anon_sym_LBRACE, anon_sym_RBRACE,
       anon_sym_COMMA, anon_sym_RBRACK, anon_sym_COLON, anon_sym_RPAREN, anon_sym_QMARK,
       anon_sym_SEMI, anon_sym_EQ_GT, anon_sym_async_STAR, anon_sym_sync_STAR,
       anon_sym_native])]),
     (106627, 20, [(ACTIONS 3, 1, [anon_sym_SLASH_SLASH]), (ACTIONS 5, 1,
       [anon_sym_SLASH_STAR]), (ACTIONS 7, 1, [anon_sym_SLASH_SLASH_SLASH]), (ACTIONS 9, 1,
       [sym__block_comment]), (ACTIONS 11, 1, [sym__documentation_block_comment]), (ACTIONS 17,
       1, [anon_sym_LPAREN]), (ACTIONS 33, 1, [sym_void_type]), (ACTIONS 45, 1,
       [anon_sym_Function]), (ACTIONS 4468, 1, [sym_identifier]), (STATE 1463, 1,
       [sym__function_builtin_identifier]), (STATE 1530, 1, [sym__type_name]), (STATE 1605, 1,
       [aux_sym__function_type_tails]), (STATE 1704, 1, [sym__function_type_tail]), (STATE 1796,
       1, [sym__type_not_function]), (STATE 1805, 1, [sym_record_type]), (STATE 1848, 1,
       [sym_function_type]), (STATE 1896, 1, [sym__type_not_void_not_function]), (STATE 3043, 1,
       [sym__type]), (STATE 3546, 1, [sym_identifier_list]), (STATE 2021, 2, [sym_comment,
       sym_documentation_comment])])]"

lemma small_run_731: "small_run 2018 106487 ts_small_parse_table_731 2022 106689"
  by (simp add: small_simps ts_small_parse_table_731_def)

definition ts_small_parse_table_732 :: "small_group list" where
  "ts_small_parse_table_732 = [
     (106689, 8, [(ACTIONS 3, 1, [anon_sym_SLASH_SLASH]), (ACTIONS 5, 1,
       [anon_sym_SLASH_STAR]), (ACTIONS 7, 1, [anon_sym_SLASH_SLASH_SLASH]), (ACTIONS 9, 1,
       [sym__block_comment]), (ACTIONS 11, 1, [sym__documentation_block_comment]), (ACTIONS 4472,
       1, [anon_sym_EQ]), (STATE 2022, 2, [sym_comment, sym_documentation_comment]), (ACTIONS
       4470, 13, [anon_sym_RBRACE, anon_sym_COMMA, anon_sym_RBRACK, anon_sym_COLON,
       anon_sym_RPAREN, anon_sym_QMARK, anon_sym_BANG, anon_sym_as, anon_sym_EQ_GT,
       anon_sym_when, anon_sym_in, anon_sym_AMP_AMP, anon_sym_PIPE_PIPE])]),
     (106727, 20, [(ACTIONS 3, 1, [anon_sym_SLASH_SLASH]), (ACTIONS 5, 1,
       [anon_sym_SLASH_STAR]), (ACTIONS 7, 1, [anon_sym_SLASH_SLASH_SLASH]), (ACTIONS 9, 1,
       [sym__block_comment]), (ACTIONS 11, 1, [sym__documentation_block_comment]), (ACTIONS 17,
       1, [anon_sym_LPAREN]), (ACTIONS 33, 1, [sym_void_type]), (ACTIONS 45, 1,
       [anon_sym_Function]), (ACTIONS 3408, 1, [sym_identifier]), (STATE 1463, 1,
       [sym__function_builtin_identifier]), (STATE 1530, 1, [sym__type_name]), (STATE 1605, 1,
       [aux_sym__function_type_tails]), (STATE 1704, 1, [sym__function_type_tail]), (STATE 1985,
       1, [sym_record_type]), (STATE 2099, 1, [sym__type_not_void_not_function]), (STATE 2145, 1,
       [sym_function_type]), (STATE 2554, 1, [sym__type_not_void]), (STATE 2633, 1,
       [sym__type_not_function]), (STATE 3065, 1, [sym__type_not_void_list]), (STATE 2023, 2,
       [sym_comment, sym_documentation_comment])]),
     (106789, 8, [(ACTIONS 3, 1, [anon_sym_SLASH_SLASH]), (ACTIONS 5, 1,
       [anon_sym_SLASH_STAR]), (ACTIONS 7, 1, [anon_sym_SLASH_SLASH_SLASH]), (ACTIONS 9, 1,
       [sym__block_comment]), (ACTIONS 11, 1, [sym__documentation_block_comment]), (ACTIONS 4476,
       2, [anon_sym_EQ, anon_sym_async]), (STATE 2024, 2, [sym_comment,
       sym_documentation_comment]), (ACTIONS 4474, 12, [anon_sym_LBRACE, anon_sym_RBRACE,
       anon_sym_COMMA, anon_sym_RBRACK, anon_sym_COLON, anon_sym_RPAREN, anon_sym_QMARK,
       anon_sym_SEMI, anon_sym_EQ_GT, anon_sym_async_STAR, anon_sym_sync_STAR,
       anon_sym_native])]),
     (106827, 8, [(ACTIONS 3, 1, [anon_sym_SLASH_SLASH]), (ACTIONS 5, 1,
       [anon_sym_SLASH_STAR]), (ACTIONS 7, 1, [anon_sym_SLASH_SLASH_SLASH]), (ACTIONS 9, 1,
       [sym__block_comment]), (ACTIONS 11, 1, [sym__documentation_block_comment]), (ACTIONS 2674,
       1, [anon_sym_EQ]), (STATE 2025, 2, [sym_comment, sym_documentation_comment]), (ACTIONS
       4478, 13, [anon_sym_RBRACE, anon_sym_COMMA, anon_sym_RBRACK, anon_sym_COLON,
       anon_sym_RPAREN, anon_sym_QMARK, anon_sym_BANG, anon_sym_as, anon_sym_EQ_GT,
       anon_sym_when, anon_sym_in, anon_sym_AMP_AMP, anon_sym_PIPE_PIPE])])]"

lemma small_run_732: "small_run 2022 106689 ts_small_parse_table_732 2026 106865"
  by (simp add: small_simps ts_small_parse_table_732_def)

definition ts_small_parse_table_733 :: "small_group list" where
  "ts_small_parse_table_733 = [
     (106865, 8, [(ACTIONS 3, 1, [anon_sym_SLASH_SLASH]), (ACTIONS 5, 1,
       [anon_sym_SLASH_STAR]), (ACTIONS 7, 1, [anon_sym_SLASH_SLASH_SLASH]), (ACTIONS 9, 1,
       [sym__block_comment]), (ACTIONS 11, 1, [sym__documentation_block_comment]), (ACTIONS 4482,
       1, [anon_sym_EQ]), (STATE 2026, 2, [sym_comment, sym_documentation_comment]), (ACTIONS
       4480, 13, [anon_sym_RBRACE, anon_sym_COMMA, anon_sym_RBRACK, anon_sym_COLON,
       anon_sym_RPAREN, anon_sym_QMARK, anon_sym_BANG, anon_sym_as, anon_sym_EQ_GT,
       anon_sym_when, anon_sym_in, anon_sym_AMP_AMP, anon_sym_PIPE_PIPE])]),
     (106903, 20, [(ACTIONS 3, 1, [anon_sym_SLASH_SLASH]), (ACTIONS 5, 1,
       [anon_sym_SLASH_STAR]), (ACTIONS 7, 1, [anon_sym_SLASH_SLASH_SLASH]), (ACTIONS 9, 1,
       [sym__block_comment]), (ACTIONS 11, 1, [sym__documentation_block_comment]), (ACTIONS 17,
       1, [anon_sym_LPAREN]), (ACTIONS 33, 1, [sym_void_type]), (ACTIONS 45, 1,
       [anon_sym_Function]), (ACTIONS 3408, 1, [sym_identifier]), (STATE 1463, 1,
       [sym__function_builtin_identifier]), (STATE 1530, 1, [sym__type_name]), (STATE 1605, 1,
       [aux_sym__function_type_tails]), (STATE 1704, 1, [sym__function_type_tail]), (STATE 1985,
       1, [sym_record_type]), (STATE 2099, 1, [sym__type_not_void_not_function]), (STATE 2145, 1,
       [sym_function_type]), (STATE 2554, 1, [sym__type_not_void]), (STATE 2633, 1,
       [sym__type_not_function]), (STATE 2971, 1, [sym__type_not_void_list]), (STATE 2027, 2,
       [sym_comment, sym_documentation_comment])]),
     (106965, 8, [(ACTIONS 3, 1, [anon_sym_SLASH_SLASH]), (ACTIONS 5, 1,
       [anon_sym_SLASH_STAR]), (ACTIONS 7, 1, [anon_sym_SLASH_SLASH_SLASH]), (ACTIONS 9, 1,
       [sym__block_comment]), (ACTIONS 11, 1, [sym__documentation_block_comment]), (ACTIONS 2696,
       1, [anon_sym_EQ]), (STATE 2028, 2, [sym_comment, sym_documentation_comment]), (ACTIONS
       4484, 13, [anon_sym_RBRACE, anon_sym_COMMA, anon_sym_RBRACK, anon_sym_COLON,
       anon_sym_RPAREN, anon_sym_QMARK, anon_sym_BANG, anon_sym_as, anon_sym_EQ_GT,
       anon_sym_when, anon_sym_in, anon_sym_AMP_AMP, anon_sym_PIPE_PIPE])]),
     (107003, 8, [(ACTIONS 3, 1, [anon_sym_SLASH_SLASH]), (ACTIONS 5, 1,
       [anon_sym_SLASH_STAR]), (ACTIONS 7, 1, [anon_sym_SLASH_SLASH_SLASH]), (ACTIONS 9, 1,
       [sym__block_comment]), (ACTIONS 11, 1, [sym__documentation_block_comment]), (ACTIONS 982,
       1, [anon_sym_EQ]), (STATE 2029, 2, [sym_comment, sym_documentation_comment]), (ACTIONS
       4486, 13, [anon_sym_RBRACE, anon_sym_COMMA, anon_sym_RBRACK, anon_sym_COLON,
       anon_sym_RPAREN, anon_sym_QMARK, anon_sym_BANG, anon_sym_as, anon_sym_EQ_GT,
       anon_sym_when, anon_sym_in, anon_sym_AMP_AMP, anon_sym_PIPE_PIPE])])]"

lemma small_run_733: "small_run 2026 106865 ts_small_parse_table_733 2030 107041"
  by (simp add: small_simps ts_small_parse_table_733_def)

definition ts_small_parse_table_734 :: "small_group list" where
  "ts_small_parse_table_734 = [
     (107041, 20, [(ACTIONS 3, 1, [anon_sym_SLASH_SLASH]), (ACTIONS 5, 1,
       [anon_sym_SLASH_STAR]), (ACTIONS 7, 1, [anon_sym_SLASH_SLASH_SLASH]), (ACTIONS 9, 1,
       [sym__block_comment]), (ACTIONS 11, 1, [sym__documentation_block_comment]), (ACTIONS 17,
       1, [anon_sym_LPAREN]), (ACTIONS 33, 1, [sym_void_type]), (ACTIONS 45, 1,
       [anon_sym_Function]), (ACTIONS 2156, 1, [anon_sym_GT]), (ACTIONS 3408, 1,
       [sym_identifier]), (STATE 1463, 1, [sym__function_builtin_identifier]), (STATE 1530, 1,
       [sym__type_name]), (STATE 1605, 1, [aux_sym__function_type_tails]), (STATE 1704, 1,
       [sym__function_type_tail]), (STATE 1796, 1, [sym__type_not_function]), (STATE 1805, 1,
       [sym_record_type]), (STATE 1848, 1, [sym_function_type]), (STATE 1896, 1,
       [sym__type_not_void_not_function]), (STATE 2723, 1, [sym__type]), (STATE 2030, 2,
       [sym_comment, sym_documentation_comment])]),
     (107103, 8, [(ACTIONS 3, 1, [anon_sym_SLASH_SLASH]), (ACTIONS 5, 1,
       [anon_sym_SLASH_STAR]), (ACTIONS 7, 1, [anon_sym_SLASH_SLASH_SLASH]), (ACTIONS 9, 1,
       [sym__block_comment]), (ACTIONS 11, 1, [sym__documentation_block_comment]), (ACTIONS 4490,
       2, [anon_sym_EQ, anon_sym_async]), (STATE 2031, 2, [sym_comment,
       sym_documentation_comment]), (ACTIONS 4488, 12, [anon_sym_LBRACE, anon_sym_RBRACE,
       anon_sym_COMMA, anon_sym_RBRACK, anon_sym_COLON, anon_sym_RPAREN, anon_sym_QMARK,
       anon_sym_SEMI, anon_sym_EQ_GT, anon_sym_async_STAR, anon_sym_sync_STAR,
       anon_sym_native])]),
     (107141, 14, [(ACTIONS 3, 1, [anon_sym_SLASH_SLASH]), (ACTIONS 5, 1,
       [anon_sym_SLASH_STAR]), (ACTIONS 7, 1, [anon_sym_SLASH_SLASH_SLASH]), (ACTIONS 9, 1,
       [sym__block_comment]), (ACTIONS 11, 1, [sym__documentation_block_comment]), (ACTIONS 4319,
       1, [anon_sym_QMARK]), (ACTIONS 4322, 1, [anon_sym_as]), (ACTIONS 4324, 1, [anon_sym_DOT]),
       (ACTIONS 4492, 1, [anon_sym_COLON]), (STATE 1612, 1, [sym__type_dot_identifier]), (ACTIONS
       1320, 2, [anon_sym_Function, sym_identifier]), (ACTIONS 2015, 2, [anon_sym_LPAREN,
       anon_sym_LT]), (STATE 2032, 2, [sym_comment, sym_documentation_comment]), (ACTIONS 4317,
       5, [anon_sym_COMMA, anon_sym_RPAREN, anon_sym_BANG, anon_sym_AMP_AMP,
       anon_sym_PIPE_PIPE])]),
     (107191, 20, [(ACTIONS 3, 1, [anon_sym_SLASH_SLASH]), (ACTIONS 5, 1,
       [anon_sym_SLASH_STAR]), (ACTIONS 7, 1, [anon_sym_SLASH_SLASH_SLASH]), (ACTIONS 9, 1,
       [sym__block_comment]), (ACTIONS 11, 1, [sym__documentation_block_comment]), (ACTIONS 17,
       1, [anon_sym_LPAREN]), (ACTIONS 33, 1, [sym_void_type]), (ACTIONS 45, 1,
       [anon_sym_Function]), (ACTIONS 3408, 1, [sym_identifier]), (STATE 1463, 1,
       [sym__function_builtin_identifier]), (STATE 1530, 1, [sym__type_name]), (STATE 1605, 1,
       [aux_sym__function_type_tails]), (STATE 1704, 1, [sym__function_type_tail]), (STATE 1796,
       1, [sym__type_not_function]), (STATE 1805, 1, [sym_record_type]), (STATE 1848, 1,
       [sym_function_type]), (STATE 1896, 1, [sym__type_not_void_not_function]), (STATE 2651, 1,
       [sym__type]), (STATE 2727, 1, [sym_typed_identifier]), (STATE 2033, 2, [sym_comment,
       sym_documentation_comment])])]"

lemma small_run_734: "small_run 2030 107041 ts_small_parse_table_734 2034 107253"
  by (simp add: small_simps ts_small_parse_table_734_def)

definition ts_small_parse_table_735 :: "small_group list" where
  "ts_small_parse_table_735 = [
     (107253, 8, [(ACTIONS 3, 1, [anon_sym_SLASH_SLASH]), (ACTIONS 5, 1,
       [anon_sym_SLASH_STAR]), (ACTIONS 7, 1, [anon_sym_SLASH_SLASH_SLASH]), (ACTIONS 9, 1,
       [sym__block_comment]), (ACTIONS 11, 1, [sym__documentation_block_comment]), (ACTIONS 4496,
       1, [anon_sym_EQ]), (STATE 2034, 2, [sym_comment, sym_documentation_comment]), (ACTIONS
       4494, 13, [anon_sym_RBRACE, anon_sym_COMMA, anon_sym_RBRACK, anon_sym_COLON,
       anon_sym_RPAREN, anon_sym_QMARK, anon_sym_BANG, anon_sym_as, anon_sym_EQ_GT,
       anon_sym_when, anon_sym_in, anon_sym_AMP_AMP, anon_sym_PIPE_PIPE])]),
     (107291, 20, [(ACTIONS 3, 1, [anon_sym_SLASH_SLASH]), (ACTIONS 5, 1,
       [anon_sym_SLASH_STAR]), (ACTIONS 7, 1, [anon_sym_SLASH_SLASH_SLASH]), (ACTIONS 9, 1,
       [sym__block_comment]), (ACTIONS 11, 1, [sym__documentation_block_comment]), (ACTIONS 17,
       1, [anon_sym_LPAREN]), (ACTIONS 33, 1, [sym_void_type]), (ACTIONS 45, 1,
       [anon_sym_Function]), (ACTIONS 3408, 1, [sym_identifier]), (ACTIONS 4498, 1,
       [anon_sym_GT]), (STATE 1463, 1, [sym__function_builtin_identifier]), (STATE 1530, 1,
       [sym__type_name]), (STATE 1605, 1, [aux_sym__function_type_tails]), (STATE 1704, 1,
       [sym__function_type_tail]), (STATE 1796, 1, [sym__type_not_function]), (STATE 1805, 1,
       [sym_record_type]), (STATE 1848, 1, [sym_function_type]), (STATE 1896, 1,
       [sym__type_not_void_not_function]), (STATE 2842, 1, [sym__type]), (STATE 2035, 2,
       [sym_comment, sym_documentation_comment])]),
     (107353, 20, [(ACTIONS 3, 1, [anon_sym_SLASH_SLASH]), (ACTIONS 5, 1,
       [anon_sym_SLASH_STAR]), (ACTIONS 7, 1, [anon_sym_SLASH_SLASH_SLASH]), (ACTIONS 9, 1,
       [sym__block_comment]), (ACTIONS 11, 1, [sym__documentation_block_comment]), (ACTIONS 17,
       1, [anon_sym_LPAREN]), (ACTIONS 33, 1, [sym_void_type]), (ACTIONS 45, 1,
       [anon_sym_Function]), (ACTIONS 3408, 1, [sym_identifier]), (STATE 1463, 1,
       [sym__function_builtin_identifier]), (STATE 1530, 1, [sym__type_name]), (STATE 1605, 1,
       [aux_sym__function_type_tails]), (STATE 1704, 1, [sym__function_type_tail]), (STATE 1985,
       1, [sym_record_type]), (STATE 2099, 1, [sym__type_not_void_not_function]), (STATE 2145, 1,
       [sym_function_type]), (STATE 2554, 1, [sym__type_not_void]), (STATE 2564, 1,
       [sym__type_not_void_list]), (STATE 2633, 1, [sym__type_not_function]), (STATE 2036, 2,
       [sym_comment, sym_documentation_comment])]),
     (107415, 10, [(ACTIONS 3, 1, [anon_sym_SLASH_SLASH]), (ACTIONS 5, 1,
       [anon_sym_SLASH_STAR]), (ACTIONS 7, 1, [anon_sym_SLASH_SLASH_SLASH]), (ACTIONS 9, 1,
       [sym__block_comment]), (ACTIONS 11, 1, [sym__documentation_block_comment]), (ACTIONS 4438,
       1, [anon_sym_async]), (STATE 2037, 2, [sym_comment, sym_documentation_comment]), (ACTIONS
       2606, 3, [anon_sym_COMMA, anon_sym_RPAREN, anon_sym_QMARK]), (ACTIONS 4436, 4,
       [anon_sym_LBRACE, anon_sym_EQ_GT, anon_sym_async_STAR, anon_sym_sync_STAR]), (ACTIONS
       2608, 6, [anon_sym_Function, anon_sym_get, anon_sym_set, anon_sym_this, anon_sym_super,
       sym_identifier])])]"

lemma small_run_735: "small_run 2034 107253 ts_small_parse_table_735 2038 107457"
  by (simp add: small_simps ts_small_parse_table_735_def)

definition ts_small_parse_table_part_7 :: "small_group list" where
  "ts_small_parse_table_part_7 =
     ts_small_parse_table_649 @ ts_small_parse_table_650 @ ts_small_parse_table_651 @
     ts_small_parse_table_652 @ ts_small_parse_table_653 @ ts_small_parse_table_654 @
     ts_small_parse_table_655 @ ts_small_parse_table_656 @ ts_small_parse_table_657 @
     ts_small_parse_table_658 @ ts_small_parse_table_659 @ ts_small_parse_table_660 @
     ts_small_parse_table_661 @ ts_small_parse_table_662 @ ts_small_parse_table_663 @
     ts_small_parse_table_664 @ ts_small_parse_table_665 @ ts_small_parse_table_666 @
     ts_small_parse_table_667 @ ts_small_parse_table_668 @ ts_small_parse_table_669 @
     ts_small_parse_table_670 @ ts_small_parse_table_671 @ ts_small_parse_table_672 @
     ts_small_parse_table_673 @ ts_small_parse_table_674 @ ts_small_parse_table_675 @
     ts_small_parse_table_676 @ ts_small_parse_table_677 @ ts_small_parse_table_678 @
     ts_small_parse_table_679 @ ts_small_parse_table_680 @ ts_small_parse_table_681 @
     ts_small_parse_table_682 @ ts_small_parse_table_683 @ ts_small_parse_table_684 @
     ts_small_parse_table_685 @ ts_small_parse_table_686 @ ts_small_parse_table_687 @
     ts_small_parse_table_688 @ ts_small_parse_table_689 @ ts_small_parse_table_690 @
     ts_small_parse_table_691 @ ts_small_parse_table_692 @ ts_small_parse_table_693 @
     ts_small_parse_table_694 @ ts_small_parse_table_695 @ ts_small_parse_table_696 @
     ts_small_parse_table_697 @ ts_small_parse_table_698 @ ts_small_parse_table_699 @
     ts_small_parse_table_700 @ ts_small_parse_table_701 @ ts_small_parse_table_702 @
     ts_small_parse_table_703 @ ts_small_parse_table_704 @ ts_small_parse_table_705 @
     ts_small_parse_table_706 @ ts_small_parse_table_707 @ ts_small_parse_table_708 @
     ts_small_parse_table_709 @ ts_small_parse_table_710 @ ts_small_parse_table_711 @
     ts_small_parse_table_712 @ ts_small_parse_table_713 @ ts_small_parse_table_714 @
     ts_small_parse_table_715 @ ts_small_parse_table_716 @ ts_small_parse_table_717 @
     ts_small_parse_table_718 @ ts_small_parse_table_719 @ ts_small_parse_table_720 @
     ts_small_parse_table_721 @ ts_small_parse_table_722 @ ts_small_parse_table_723 @
     ts_small_parse_table_724 @ ts_small_parse_table_725 @ ts_small_parse_table_726 @
     ts_small_parse_table_727 @ ts_small_parse_table_728 @ ts_small_parse_table_729 @
     ts_small_parse_table_730 @ ts_small_parse_table_731 @ ts_small_parse_table_732 @
     ts_small_parse_table_733 @ ts_small_parse_table_734 @ ts_small_parse_table_735"

lemma small_part_7: "small_run 1790 92169 ts_small_parse_table_part_7 2038 107457"
  unfolding ts_small_parse_table_part_7_def
  by (rule small_run_append [OF small_run_649], rule small_run_append [OF small_run_650],
    rule small_run_append [OF small_run_651], rule small_run_append [OF small_run_652],
    rule small_run_append [OF small_run_653], rule small_run_append [OF small_run_654],
    rule small_run_append [OF small_run_655], rule small_run_append [OF small_run_656],
    rule small_run_append [OF small_run_657], rule small_run_append [OF small_run_658],
    rule small_run_append [OF small_run_659], rule small_run_append [OF small_run_660],
    rule small_run_append [OF small_run_661], rule small_run_append [OF small_run_662],
    rule small_run_append [OF small_run_663], rule small_run_append [OF small_run_664],
    rule small_run_append [OF small_run_665], rule small_run_append [OF small_run_666],
    rule small_run_append [OF small_run_667], rule small_run_append [OF small_run_668],
    rule small_run_append [OF small_run_669], rule small_run_append [OF small_run_670],
    rule small_run_append [OF small_run_671], rule small_run_append [OF small_run_672],
    rule small_run_append [OF small_run_673], rule small_run_append [OF small_run_674],
    rule small_run_append [OF small_run_675], rule small_run_append [OF small_run_676],
    rule small_run_append [OF small_run_677], rule small_run_append [OF small_run_678],
    rule small_run_append [OF small_run_679], rule small_run_append [OF small_run_680],
    rule small_run_append [OF small_run_681], rule small_run_append [OF small_run_682],
    rule small_run_append [OF small_run_683], rule small_run_append [OF small_run_684],
    rule small_run_append [OF small_run_685], rule small_run_append [OF small_run_686],
    rule small_run_append [OF small_run_687], rule small_run_append [OF small_run_688],
    rule small_run_append [OF small_run_689], rule small_run_append [OF small_run_690],
    rule small_run_append [OF small_run_691], rule small_run_append [OF small_run_692],
    rule small_run_append [OF small_run_693], rule small_run_append [OF small_run_694],
    rule small_run_append [OF small_run_695], rule small_run_append [OF small_run_696],
    rule small_run_append [OF small_run_697], rule small_run_append [OF small_run_698],
    rule small_run_append [OF small_run_699], rule small_run_append [OF small_run_700],
    rule small_run_append [OF small_run_701], rule small_run_append [OF small_run_702],
    rule small_run_append [OF small_run_703], rule small_run_append [OF small_run_704],
    rule small_run_append [OF small_run_705], rule small_run_append [OF small_run_706],
    rule small_run_append [OF small_run_707], rule small_run_append [OF small_run_708],
    rule small_run_append [OF small_run_709], rule small_run_append [OF small_run_710],
    rule small_run_append [OF small_run_711], rule small_run_append [OF small_run_712],
    rule small_run_append [OF small_run_713], rule small_run_append [OF small_run_714],
    rule small_run_append [OF small_run_715], rule small_run_append [OF small_run_716],
    rule small_run_append [OF small_run_717], rule small_run_append [OF small_run_718],
    rule small_run_append [OF small_run_719], rule small_run_append [OF small_run_720],
    rule small_run_append [OF small_run_721], rule small_run_append [OF small_run_722],
    rule small_run_append [OF small_run_723], rule small_run_append [OF small_run_724],
    rule small_run_append [OF small_run_725], rule small_run_append [OF small_run_726],
    rule small_run_append [OF small_run_727], rule small_run_append [OF small_run_728],
    rule small_run_append [OF small_run_729], rule small_run_append [OF small_run_730],
    rule small_run_append [OF small_run_731], rule small_run_append [OF small_run_732],
    rule small_run_append [OF small_run_733], rule small_run_append [OF small_run_734],
    rule small_run_735)

end
