(* ===== verification/Dart_Small_8.thy ===== *)
theory Dart_Small_8
  imports Dart_Items
begin

text \<open>
  The groups of \<^verbatim>\<open>ts_small_parse_table\<close> for the states 2038 to 2419, in blocks of at most 150 lines of
  the source, each with the check of its layout and of its entries.
\<close>

definition ts_small_parse_table_736 :: "small_group list" where
  "ts_small_parse_table_736 = [
     (107457, 16, [(ACTIONS 3, 1, [anon_sym_SLASH_SLASH]), (ACTIONS 5, 1,
       [anon_sym_SLASH_STAR]), (ACTIONS 7, 1, [anon_sym_SLASH_SLASH_SLASH]), (ACTIONS 9, 1,
       [sym__block_comment]), (ACTIONS 11, 1, [sym__documentation_block_comment]), (ACTIONS 2015,
       1, [anon_sym_QMARK]), (ACTIONS 4278, 1, [anon_sym_LPAREN]), (ACTIONS 4280, 1,
       [anon_sym_LT]), (ACTIONS 4500, 1, [anon_sym_DOT]), (STATE 1612, 1,
       [sym__type_dot_identifier]), (STATE 2016, 1, [sym__strict_formal_parameter_list]), (STATE
       2276, 1, [sym__formal_parameter_part]), (STATE 2296, 1, [sym_formal_parameter_list]),
       (STATE 2932, 1, [sym_type_parameters]), (STATE 2038, 2, [sym_comment,
       sym_documentation_comment]), (ACTIONS 1320, 5, [anon_sym_Function, anon_sym_get,
       anon_sym_operator, anon_sym_set, sym_identifier])]),
     (107511, 14, [(ACTIONS 3, 1, [anon_sym_SLASH_SLASH]), (ACTIONS 5, 1,
       [anon_sym_SLASH_STAR]), (ACTIONS 7, 1, [anon_sym_SLASH_SLASH_SLASH]), (ACTIONS 9, 1,
       [sym__block_comment]), (ACTIONS 11, 1, [sym__documentation_block_comment]), (ACTIONS 4322,
       1, [anon_sym_as]), (ACTIONS 4324, 1, [anon_sym_DOT]), (ACTIONS 4492, 1, [anon_sym_COLON]),
       (STATE 1612, 1, [sym__type_dot_identifier]), (ACTIONS 1320, 2, [anon_sym_Function,
       sym_identifier]), (ACTIONS 2015, 2, [anon_sym_LPAREN, anon_sym_LT]), (STATE 2039, 2,
       [sym_comment, sym_documentation_comment]), (ACTIONS 4317, 3, [anon_sym_BANG,
       anon_sym_AMP_AMP, anon_sym_PIPE_PIPE]), (ACTIONS 4319, 3, [anon_sym_COMMA,
       anon_sym_RPAREN, anon_sym_QMARK])]),
     (107561, 20, [(ACTIONS 3, 1, [anon_sym_SLASH_SLASH]), (ACTIONS 5, 1,
       [anon_sym_SLASH_STAR]), (ACTIONS 7, 1, [anon_sym_SLASH_SLASH_SLASH]), (ACTIONS 9, 1,
       [sym__block_comment]), (ACTIONS 11, 1, [sym__documentation_block_comment]), (ACTIONS 17,
       1, [anon_sym_LPAREN]), (ACTIONS 33, 1, [sym_void_type]), (ACTIONS 45, 1,
       [anon_sym_Function]), (ACTIONS 3408, 1, [sym_identifier]), (STATE 1463, 1,
       [sym__function_builtin_identifier]), (STATE 1530, 1, [sym__type_name]), (STATE 1605, 1,
       [aux_sym__function_type_tails]), (STATE 1704, 1, [sym__function_type_tail]), (STATE 1985,
       1, [sym_record_type]), (STATE 2099, 1, [sym__type_not_void_not_function]), (STATE 2145, 1,
       [sym_function_type]), (STATE 2554, 1, [sym__type_not_void]), (STATE 2582, 1,
       [sym__type_not_void_list]), (STATE 2633, 1, [sym__type_not_function]), (STATE 2040, 2,
       [sym_comment, sym_documentation_comment])])]"

lemma small_run_736: "small_run 2038 107457 ts_small_parse_table_736 2041 107623"
  by (simp add: small_simps ts_small_parse_table_736_def)

definition ts_small_parse_table_737 :: "small_group list" where
  "ts_small_parse_table_737 = [
     (107623, 14, [(ACTIONS 3, 1, [anon_sym_SLASH_SLASH]), (ACTIONS 5, 1,
       [anon_sym_SLASH_STAR]), (ACTIONS 7, 1, [anon_sym_SLASH_SLASH_SLASH]), (ACTIONS 9, 1,
       [sym__block_comment]), (ACTIONS 11, 1, [sym__documentation_block_comment]), (ACTIONS 1502,
       1, [anon_sym_COLON]), (ACTIONS 4319, 1, [anon_sym_QMARK]), (ACTIONS 4324, 1,
       [anon_sym_DOT]), (STATE 1612, 1, [sym__type_dot_identifier]), (ACTIONS 1320, 2,
       [anon_sym_Function, sym_identifier]), (ACTIONS 2015, 2, [anon_sym_LPAREN, anon_sym_LT]),
       (ACTIONS 4322, 2, [anon_sym_as, anon_sym_when]), (STATE 2041, 2, [sym_comment,
       sym_documentation_comment]), (ACTIONS 4317, 4, [anon_sym_BANG, anon_sym_EQ_GT,
       anon_sym_AMP_AMP, anon_sym_PIPE_PIPE])]),
     (107673, 20, [(ACTIONS 3, 1, [anon_sym_SLASH_SLASH]), (ACTIONS 5, 1,
       [anon_sym_SLASH_STAR]), (ACTIONS 7, 1, [anon_sym_SLASH_SLASH_SLASH]), (ACTIONS 9, 1,
       [sym__block_comment]), (ACTIONS 11, 1, [sym__documentation_block_comment]), (ACTIONS 17,
       1, [anon_sym_LPAREN]), (ACTIONS 33, 1, [sym_void_type]), (ACTIONS 45, 1,
       [anon_sym_Function]), (ACTIONS 3408, 1, [sym_identifier]), (ACTIONS 4502, 1,
       [anon_sym_GT]), (STATE 1463, 1, [sym__function_builtin_identifier]), (STATE 1530, 1,
       [sym__type_name]), (STATE 1605, 1, [aux_sym__function_type_tails]), (STATE 1704, 1,
       [sym__function_type_tail]), (STATE 1796, 1, [sym__type_not_function]), (STATE 1805, 1,
       [sym_record_type]), (STATE 1848, 1, [sym_function_type]), (STATE 1896, 1,
       [sym__type_not_void_not_function]), (STATE 2732, 1, [sym__type]), (STATE 2042, 2,
       [sym_comment, sym_documentation_comment])]),
     (107735, 20, [(ACTIONS 3, 1, [anon_sym_SLASH_SLASH]), (ACTIONS 5, 1,
       [anon_sym_SLASH_STAR]), (ACTIONS 7, 1, [anon_sym_SLASH_SLASH_SLASH]), (ACTIONS 9, 1,
       [sym__block_comment]), (ACTIONS 11, 1, [sym__documentation_block_comment]), (ACTIONS 17,
       1, [anon_sym_LPAREN]), (ACTIONS 33, 1, [sym_void_type]), (ACTIONS 45, 1,
       [anon_sym_Function]), (ACTIONS 3408, 1, [sym_identifier]), (STATE 1463, 1,
       [sym__function_builtin_identifier]), (STATE 1530, 1, [sym__type_name]), (STATE 1605, 1,
       [aux_sym__function_type_tails]), (STATE 1704, 1, [sym__function_type_tail]), (STATE 1796,
       1, [sym__type_not_function]), (STATE 1805, 1, [sym_record_type]), (STATE 1848, 1,
       [sym_function_type]), (STATE 1896, 1, [sym__type_not_void_not_function]), (STATE 3069, 1,
       [sym_typed_identifier]), (STATE 3495, 1, [sym__type]), (STATE 2043, 2, [sym_comment,
       sym_documentation_comment])])]"

lemma small_run_737: "small_run 2041 107623 ts_small_parse_table_737 2044 107797"
  by (simp add: small_simps ts_small_parse_table_737_def)

definition ts_small_parse_table_738 :: "small_group list" where
  "ts_small_parse_table_738 = [
     (107797, 20, [(ACTIONS 3, 1, [anon_sym_SLASH_SLASH]), (ACTIONS 5, 1,
       [anon_sym_SLASH_STAR]), (ACTIONS 7, 1, [anon_sym_SLASH_SLASH_SLASH]), (ACTIONS 9, 1,
       [sym__block_comment]), (ACTIONS 11, 1, [sym__documentation_block_comment]), (ACTIONS 17,
       1, [anon_sym_LPAREN]), (ACTIONS 33, 1, [sym_void_type]), (ACTIONS 45, 1,
       [anon_sym_Function]), (ACTIONS 3408, 1, [sym_identifier]), (ACTIONS 4504, 1,
       [anon_sym_GT]), (STATE 1463, 1, [sym__function_builtin_identifier]), (STATE 1530, 1,
       [sym__type_name]), (STATE 1605, 1, [aux_sym__function_type_tails]), (STATE 1704, 1,
       [sym__function_type_tail]), (STATE 1796, 1, [sym__type_not_function]), (STATE 1805, 1,
       [sym_record_type]), (STATE 1848, 1, [sym_function_type]), (STATE 1896, 1,
       [sym__type_not_void_not_function]), (STATE 2685, 1, [sym__type]), (STATE 2044, 2,
       [sym_comment, sym_documentation_comment])]),
     (107859, 8, [(ACTIONS 3, 1, [anon_sym_SLASH_SLASH]), (ACTIONS 5, 1,
       [anon_sym_SLASH_STAR]), (ACTIONS 7, 1, [anon_sym_SLASH_SLASH_SLASH]), (ACTIONS 9, 1,
       [sym__block_comment]), (ACTIONS 11, 1, [sym__documentation_block_comment]), (ACTIONS 4508,
       1, [anon_sym_EQ]), (STATE 2045, 2, [sym_comment, sym_documentation_comment]), (ACTIONS
       4506, 13, [anon_sym_RBRACE, anon_sym_COMMA, anon_sym_RBRACK, anon_sym_COLON,
       anon_sym_RPAREN, anon_sym_QMARK, anon_sym_BANG, anon_sym_as, anon_sym_EQ_GT,
       anon_sym_when, anon_sym_in, anon_sym_AMP_AMP, anon_sym_PIPE_PIPE])]),
     (107897, 8, [(ACTIONS 3, 1, [anon_sym_SLASH_SLASH]), (ACTIONS 5, 1,
       [anon_sym_SLASH_STAR]), (ACTIONS 7, 1, [anon_sym_SLASH_SLASH_SLASH]), (ACTIONS 9, 1,
       [sym__block_comment]), (ACTIONS 11, 1, [sym__documentation_block_comment]), (ACTIONS 2659,
       1, [anon_sym_EQ]), (STATE 2046, 2, [sym_comment, sym_documentation_comment]), (ACTIONS
       4510, 13, [anon_sym_RBRACE, anon_sym_COMMA, anon_sym_RBRACK, anon_sym_COLON,
       anon_sym_RPAREN, anon_sym_QMARK, anon_sym_BANG, anon_sym_as, anon_sym_EQ_GT,
       anon_sym_when, anon_sym_in, anon_sym_AMP_AMP, anon_sym_PIPE_PIPE])]),
     (107935, 8, [(ACTIONS 3, 1, [anon_sym_SLASH_SLASH]), (ACTIONS 5, 1,
       [anon_sym_SLASH_STAR]), (ACTIONS 7, 1, [anon_sym_SLASH_SLASH_SLASH]), (ACTIONS 9, 1,
       [sym__block_comment]), (ACTIONS 11, 1, [sym__documentation_block_comment]), (ACTIONS 4514,
       1, [anon_sym_EQ]), (STATE 2047, 2, [sym_comment, sym_documentation_comment]), (ACTIONS
       4512, 13, [anon_sym_RBRACE, anon_sym_COMMA, anon_sym_RBRACK, anon_sym_COLON,
       anon_sym_RPAREN, anon_sym_QMARK, anon_sym_BANG, anon_sym_as, anon_sym_EQ_GT,
       anon_sym_when, anon_sym_in, anon_sym_AMP_AMP, anon_sym_PIPE_PIPE])])]"

lemma small_run_738: "small_run 2044 107797 ts_small_parse_table_738 2048 107973"
  by (simp add: small_simps ts_small_parse_table_738_def)

definition ts_small_parse_table_739 :: "small_group list" where
  "ts_small_parse_table_739 = [
     (107973, 20, [(ACTIONS 3, 1, [anon_sym_SLASH_SLASH]), (ACTIONS 5, 1,
       [anon_sym_SLASH_STAR]), (ACTIONS 7, 1, [anon_sym_SLASH_SLASH_SLASH]), (ACTIONS 9, 1,
       [sym__block_comment]), (ACTIONS 11, 1, [sym__documentation_block_comment]), (ACTIONS 17,
       1, [anon_sym_LPAREN]), (ACTIONS 33, 1, [sym_void_type]), (ACTIONS 45, 1,
       [anon_sym_Function]), (ACTIONS 3408, 1, [sym_identifier]), (ACTIONS 4516, 1,
       [anon_sym_GT]), (STATE 1463, 1, [sym__function_builtin_identifier]), (STATE 1530, 1,
       [sym__type_name]), (STATE 1605, 1, [aux_sym__function_type_tails]), (STATE 1704, 1,
       [sym__function_type_tail]), (STATE 1796, 1, [sym__type_not_function]), (STATE 1805, 1,
       [sym_record_type]), (STATE 1848, 1, [sym_function_type]), (STATE 1896, 1,
       [sym__type_not_void_not_function]), (STATE 2702, 1, [sym__type]), (STATE 2048, 2,
       [sym_comment, sym_documentation_comment])]),
     (108035, 8, [(ACTIONS 3, 1, [anon_sym_SLASH_SLASH]), (ACTIONS 5, 1,
       [anon_sym_SLASH_STAR]), (ACTIONS 7, 1, [anon_sym_SLASH_SLASH_SLASH]), (ACTIONS 9, 1,
       [sym__block_comment]), (ACTIONS 11, 1, [sym__documentation_block_comment]), (ACTIONS 4520,
       1, [anon_sym_EQ]), (STATE 2049, 2, [sym_comment, sym_documentation_comment]), (ACTIONS
       4518, 13, [anon_sym_RBRACE, anon_sym_COMMA, anon_sym_RBRACK, anon_sym_COLON,
       anon_sym_RPAREN, anon_sym_QMARK, anon_sym_BANG, anon_sym_as, anon_sym_EQ_GT,
       anon_sym_when, anon_sym_in, anon_sym_AMP_AMP, anon_sym_PIPE_PIPE])]),
     (108073, 8, [(ACTIONS 3, 1, [anon_sym_SLASH_SLASH]), (ACTIONS 5, 1,
       [anon_sym_SLASH_STAR]), (ACTIONS 7, 1, [anon_sym_SLASH_SLASH_SLASH]), (ACTIONS 9, 1,
       [sym__block_comment]), (ACTIONS 11, 1, [sym__documentation_block_comment]), (ACTIONS 4524,
       1, [anon_sym_EQ]), (STATE 2050, 2, [sym_comment, sym_documentation_comment]), (ACTIONS
       4522, 13, [anon_sym_RBRACE, anon_sym_COMMA, anon_sym_RBRACK, anon_sym_COLON,
       anon_sym_RPAREN, anon_sym_QMARK, anon_sym_BANG, anon_sym_as, anon_sym_EQ_GT,
       anon_sym_when, anon_sym_in, anon_sym_AMP_AMP, anon_sym_PIPE_PIPE])]),
     (108111, 20, [(ACTIONS 3, 1, [anon_sym_SLASH_SLASH]), (ACTIONS 5, 1,
       [anon_sym_SLASH_STAR]), (ACTIONS 7, 1, [anon_sym_SLASH_SLASH_SLASH]), (ACTIONS 9, 1,
       [sym__block_comment]), (ACTIONS 11, 1, [sym__documentation_block_comment]), (ACTIONS 17,
       1, [anon_sym_LPAREN]), (ACTIONS 33, 1, [sym_void_type]), (ACTIONS 45, 1,
       [anon_sym_Function]), (ACTIONS 3408, 1, [sym_identifier]), (STATE 1463, 1,
       [sym__function_builtin_identifier]), (STATE 1530, 1, [sym__type_name]), (STATE 1605, 1,
       [aux_sym__function_type_tails]), (STATE 1704, 1, [sym__function_type_tail]), (STATE 1985,
       1, [sym_record_type]), (STATE 2099, 1, [sym__type_not_void_not_function]), (STATE 2145, 1,
       [sym_function_type]), (STATE 2633, 1, [sym__type_not_function]), (STATE 3058, 1,
       [sym__type_not_void]), (STATE 3199, 1, [sym_mixin_application]), (STATE 2051, 2,
       [sym_comment, sym_documentation_comment])])]"

lemma small_run_739: "small_run 2048 107973 ts_small_parse_table_739 2052 108173"
  by (simp add: small_simps ts_small_parse_table_739_def)

definition ts_small_parse_table_740 :: "small_group list" where
  "ts_small_parse_table_740 = [
     (108173, 8, [(ACTIONS 3, 1, [anon_sym_SLASH_SLASH]), (ACTIONS 5, 1,
       [anon_sym_SLASH_STAR]), (ACTIONS 7, 1, [anon_sym_SLASH_SLASH_SLASH]), (ACTIONS 9, 1,
       [sym__block_comment]), (ACTIONS 11, 1, [sym__documentation_block_comment]), (ACTIONS 4528,
       1, [anon_sym_EQ]), (STATE 2052, 2, [sym_comment, sym_documentation_comment]), (ACTIONS
       4526, 13, [anon_sym_RBRACE, anon_sym_COMMA, anon_sym_RBRACK, anon_sym_COLON,
       anon_sym_RPAREN, anon_sym_QMARK, anon_sym_BANG, anon_sym_as, anon_sym_EQ_GT,
       anon_sym_when, anon_sym_in, anon_sym_AMP_AMP, anon_sym_PIPE_PIPE])]),
     (108211, 20, [(ACTIONS 3, 1, [anon_sym_SLASH_SLASH]), (ACTIONS 5, 1,
       [anon_sym_SLASH_STAR]), (ACTIONS 7, 1, [anon_sym_SLASH_SLASH_SLASH]), (ACTIONS 9, 1,
       [sym__block_comment]), (ACTIONS 11, 1, [sym__documentation_block_comment]), (ACTIONS 17,
       1, [anon_sym_LPAREN]), (ACTIONS 33, 1, [sym_void_type]), (ACTIONS 45, 1,
       [anon_sym_Function]), (ACTIONS 3408, 1, [sym_identifier]), (ACTIONS 4530, 1,
       [anon_sym_GT]), (STATE 1463, 1, [sym__function_builtin_identifier]), (STATE 1530, 1,
       [sym__type_name]), (STATE 1605, 1, [aux_sym__function_type_tails]), (STATE 1704, 1,
       [sym__function_type_tail]), (STATE 1796, 1, [sym__type_not_function]), (STATE 1805, 1,
       [sym_record_type]), (STATE 1848, 1, [sym_function_type]), (STATE 1896, 1,
       [sym__type_not_void_not_function]), (STATE 2692, 1, [sym__type]), (STATE 2053, 2,
       [sym_comment, sym_documentation_comment])]),
     (108273, 20, [(ACTIONS 3, 1, [anon_sym_SLASH_SLASH]), (ACTIONS 5, 1,
       [anon_sym_SLASH_STAR]), (ACTIONS 7, 1, [anon_sym_SLASH_SLASH_SLASH]), (ACTIONS 9, 1,
       [sym__block_comment]), (ACTIONS 11, 1, [sym__documentation_block_comment]), (ACTIONS 17,
       1, [anon_sym_LPAREN]), (ACTIONS 33, 1, [sym_void_type]), (ACTIONS 45, 1,
       [anon_sym_Function]), (ACTIONS 3408, 1, [sym_identifier]), (STATE 1463, 1,
       [sym__function_builtin_identifier]), (STATE 1530, 1, [sym__type_name]), (STATE 1605, 1,
       [aux_sym__function_type_tails]), (STATE 1704, 1, [sym__function_type_tail]), (STATE 1985,
       1, [sym_record_type]), (STATE 2099, 1, [sym__type_not_void_not_function]), (STATE 2145, 1,
       [sym_function_type]), (STATE 2554, 1, [sym__type_not_void]), (STATE 2574, 1,
       [sym__type_not_void_list]), (STATE 2633, 1, [sym__type_not_function]), (STATE 2054, 2,
       [sym_comment, sym_documentation_comment])]),
     (108335, 8, [(ACTIONS 3, 1, [anon_sym_SLASH_SLASH]), (ACTIONS 5, 1,
       [anon_sym_SLASH_STAR]), (ACTIONS 7, 1, [anon_sym_SLASH_SLASH_SLASH]), (ACTIONS 9, 1,
       [sym__block_comment]), (ACTIONS 11, 1, [sym__documentation_block_comment]), (ACTIONS 4534,
       1, [anon_sym_EQ]), (STATE 2055, 2, [sym_comment, sym_documentation_comment]), (ACTIONS
       4532, 13, [anon_sym_RBRACE, anon_sym_COMMA, anon_sym_RBRACK, anon_sym_COLON,
       anon_sym_RPAREN, anon_sym_QMARK, anon_sym_BANG, anon_sym_as, anon_sym_EQ_GT,
       anon_sym_when, anon_sym_in, anon_sym_AMP_AMP, anon_sym_PIPE_PIPE])])]"

lemma small_run_740: "small_run 2052 108173 ts_small_parse_table_740 2056 108373"
  by (simp add: small_simps ts_small_parse_table_740_def)

definition ts_small_parse_table_741 :: "small_group list" where
  "ts_small_parse_table_741 = [
     (108373, 8, [(ACTIONS 3, 1, [anon_sym_SLASH_SLASH]), (ACTIONS 5, 1,
       [anon_sym_SLASH_STAR]), (ACTIONS 7, 1, [anon_sym_SLASH_SLASH_SLASH]), (ACTIONS 9, 1,
       [sym__block_comment]), (ACTIONS 11, 1, [sym__documentation_block_comment]), (ACTIONS 4538,
       1, [anon_sym_EQ]), (STATE 2056, 2, [sym_comment, sym_documentation_comment]), (ACTIONS
       4536, 13, [anon_sym_RBRACE, anon_sym_COMMA, anon_sym_RBRACK, anon_sym_COLON,
       anon_sym_RPAREN, anon_sym_QMARK, anon_sym_BANG, anon_sym_as, anon_sym_EQ_GT,
       anon_sym_when, anon_sym_in, anon_sym_AMP_AMP, anon_sym_PIPE_PIPE])]),
     (108411, 19, [(ACTIONS 3, 1, [anon_sym_SLASH_SLASH]), (ACTIONS 5, 1,
       [anon_sym_SLASH_STAR]), (ACTIONS 7, 1, [anon_sym_SLASH_SLASH_SLASH]), (ACTIONS 9, 1,
       [sym__block_comment]), (ACTIONS 11, 1, [sym__documentation_block_comment]), (ACTIONS 17,
       1, [anon_sym_LPAREN]), (ACTIONS 33, 1, [sym_void_type]), (ACTIONS 45, 1,
       [anon_sym_Function]), (ACTIONS 3408, 1, [sym_identifier]), (STATE 1463, 1,
       [sym__function_builtin_identifier]), (STATE 1530, 1, [sym__type_name]), (STATE 1605, 1,
       [aux_sym__function_type_tails]), (STATE 1704, 1, [sym__function_type_tail]), (STATE 1796,
       1, [sym__type_not_function]), (STATE 1805, 1, [sym_record_type]), (STATE 1848, 1,
       [sym_function_type]), (STATE 1896, 1, [sym__type_not_void_not_function]), (STATE 3251, 1,
       [sym__type]), (STATE 2057, 2, [sym_comment, sym_documentation_comment])]),
     (108470, 19, [(ACTIONS 3, 1, [anon_sym_SLASH_SLASH]), (ACTIONS 5, 1,
       [anon_sym_SLASH_STAR]), (ACTIONS 7, 1, [anon_sym_SLASH_SLASH_SLASH]), (ACTIONS 9, 1,
       [sym__block_comment]), (ACTIONS 11, 1, [sym__documentation_block_comment]), (ACTIONS 33,
       1, [sym_void_type]), (ACTIONS 4540, 1, [sym_identifier]), (ACTIONS 4542, 1,
       [anon_sym_LPAREN]), (ACTIONS 4544, 1, [anon_sym_Function]), (STATE 1426, 1,
       [sym__function_builtin_identifier]), (STATE 1455, 1, [aux_sym__function_type_tails]),
       (STATE 1511, 1, [sym__type_name]), (STATE 1590, 1, [sym_record_type]), (STATE 1615, 1,
       [sym__function_type_tail]), (STATE 1627, 1, [sym__type_not_void_not_function]), (STATE
       1648, 1, [sym_function_type]), (STATE 1677, 1, [sym__type_not_void]), (STATE 2614, 1,
       [sym__type_not_function]), (STATE 2058, 2, [sym_comment, sym_documentation_comment])]),
     (108529, 19, [(ACTIONS 3, 1, [anon_sym_SLASH_SLASH]), (ACTIONS 5, 1,
       [anon_sym_SLASH_STAR]), (ACTIONS 7, 1, [anon_sym_SLASH_SLASH_SLASH]), (ACTIONS 9, 1,
       [sym__block_comment]), (ACTIONS 11, 1, [sym__documentation_block_comment]), (ACTIONS 17,
       1, [anon_sym_LPAREN]), (ACTIONS 33, 1, [sym_void_type]), (ACTIONS 45, 1,
       [anon_sym_Function]), (ACTIONS 3408, 1, [sym_identifier]), (STATE 1463, 1,
       [sym__function_builtin_identifier]), (STATE 1530, 1, [sym__type_name]), (STATE 1605, 1,
       [aux_sym__function_type_tails]), (STATE 1704, 1, [sym__function_type_tail]), (STATE 1985,
       1, [sym_record_type]), (STATE 2099, 1, [sym__type_not_void_not_function]), (STATE 2145, 1,
       [sym_function_type]), (STATE 2633, 1, [sym__type_not_function]), (STATE 3263, 1,
       [sym__type_not_void]), (STATE 2059, 2, [sym_comment, sym_documentation_comment])])]"

lemma small_run_741: "small_run 2056 108373 ts_small_parse_table_741 2060 108588"
  by (simp add: small_simps ts_small_parse_table_741_def)

definition ts_small_parse_table_742 :: "small_group list" where
  "ts_small_parse_table_742 = [
     (108588, 16, [(ACTIONS 3, 1, [anon_sym_SLASH_SLASH]), (ACTIONS 5, 1,
       [anon_sym_SLASH_STAR]), (ACTIONS 7, 1, [anon_sym_SLASH_SLASH_SLASH]), (ACTIONS 9, 1,
       [sym__block_comment]), (ACTIONS 11, 1, [sym__documentation_block_comment]), (ACTIONS 2015,
       1, [anon_sym_QMARK]), (ACTIONS 3692, 1, [anon_sym_DOT]), (ACTIONS 4278, 1,
       [anon_sym_LPAREN]), (ACTIONS 4280, 1, [anon_sym_LT]), (STATE 1612, 1,
       [sym__type_dot_identifier]), (STATE 2016, 1, [sym__strict_formal_parameter_list]), (STATE
       2020, 1, [sym_formal_parameter_list]), (STATE 2680, 1, [sym__formal_parameter_part]),
       (STATE 2932, 1, [sym_type_parameters]), (STATE 2060, 2, [sym_comment,
       sym_documentation_comment]), (ACTIONS 1320, 4, [anon_sym_Function, anon_sym_get,
       anon_sym_set, sym_identifier])]),
     (108641, 19, [(ACTIONS 3, 1, [anon_sym_SLASH_SLASH]), (ACTIONS 5, 1,
       [anon_sym_SLASH_STAR]), (ACTIONS 7, 1, [anon_sym_SLASH_SLASH_SLASH]), (ACTIONS 9, 1,
       [sym__block_comment]), (ACTIONS 11, 1, [sym__documentation_block_comment]), (ACTIONS 17,
       1, [anon_sym_LPAREN]), (ACTIONS 33, 1, [sym_void_type]), (ACTIONS 45, 1,
       [anon_sym_Function]), (ACTIONS 3408, 1, [sym_identifier]), (STATE 1463, 1,
       [sym__function_builtin_identifier]), (STATE 1530, 1, [sym__type_name]), (STATE 1605, 1,
       [aux_sym__function_type_tails]), (STATE 1704, 1, [sym__function_type_tail]), (STATE 1985,
       1, [sym_record_type]), (STATE 2099, 1, [sym__type_not_void_not_function]), (STATE 2145, 1,
       [sym_function_type]), (STATE 2633, 1, [sym__type_not_function]), (STATE 2643, 1,
       [sym__type_not_void]), (STATE 2061, 2, [sym_comment, sym_documentation_comment])]),
     (108700, 19, [(ACTIONS 3, 1, [anon_sym_SLASH_SLASH]), (ACTIONS 5, 1,
       [anon_sym_SLASH_STAR]), (ACTIONS 7, 1, [anon_sym_SLASH_SLASH_SLASH]), (ACTIONS 9, 1,
       [sym__block_comment]), (ACTIONS 11, 1, [sym__documentation_block_comment]), (ACTIONS 17,
       1, [anon_sym_LPAREN]), (ACTIONS 33, 1, [sym_void_type]), (ACTIONS 45, 1,
       [anon_sym_Function]), (ACTIONS 4289, 1, [sym_identifier]), (STATE 1463, 1,
       [sym__function_builtin_identifier]), (STATE 1530, 1, [sym__type_name]), (STATE 1605, 1,
       [aux_sym__function_type_tails]), (STATE 1704, 1, [sym__function_type_tail]), (STATE 1985,
       1, [sym_record_type]), (STATE 2099, 1, [sym__type_not_void_not_function]), (STATE 2145, 1,
       [sym_function_type]), (STATE 2633, 1, [sym__type_not_function]), (STATE 3198, 1,
       [sym__type_not_void]), (STATE 2062, 2, [sym_comment, sym_documentation_comment])])]"

lemma small_run_742: "small_run 2060 108588 ts_small_parse_table_742 2063 108759"
  by (simp add: small_simps ts_small_parse_table_742_def)

definition ts_small_parse_table_743 :: "small_group list" where
  "ts_small_parse_table_743 = [
     (108759, 16, [(ACTIONS 3, 1, [anon_sym_SLASH_SLASH]), (ACTIONS 5, 1,
       [anon_sym_SLASH_STAR]), (ACTIONS 7, 1, [anon_sym_SLASH_SLASH_SLASH]), (ACTIONS 9, 1,
       [sym__block_comment]), (ACTIONS 11, 1, [sym__documentation_block_comment]), (ACTIONS 2015,
       1, [anon_sym_QMARK]), (ACTIONS 3692, 1, [anon_sym_DOT]), (ACTIONS 4278, 1,
       [anon_sym_LPAREN]), (ACTIONS 4280, 1, [anon_sym_LT]), (STATE 1612, 1,
       [sym__type_dot_identifier]), (STATE 2016, 1, [sym__strict_formal_parameter_list]), (STATE
       2020, 1, [sym_formal_parameter_list]), (STATE 2276, 1, [sym__formal_parameter_part]),
       (STATE 2932, 1, [sym_type_parameters]), (STATE 2063, 2, [sym_comment,
       sym_documentation_comment]), (ACTIONS 1320, 4, [anon_sym_Function, anon_sym_get,
       anon_sym_set, sym_identifier])]),
     (108812, 19, [(ACTIONS 3, 1, [anon_sym_SLASH_SLASH]), (ACTIONS 5, 1,
       [anon_sym_SLASH_STAR]), (ACTIONS 7, 1, [anon_sym_SLASH_SLASH_SLASH]), (ACTIONS 9, 1,
       [sym__block_comment]), (ACTIONS 11, 1, [sym__documentation_block_comment]), (ACTIONS 33,
       1, [sym_void_type]), (ACTIONS 4546, 1, [sym_identifier]), (ACTIONS 4548, 1,
       [anon_sym_LPAREN]), (ACTIONS 4550, 1, [anon_sym_Function]), (STATE 843, 1,
       [sym__function_builtin_identifier]), (STATE 867, 1, [aux_sym__function_type_tails]),
       (STATE 978, 1, [sym__type_name]), (STATE 1015, 1, [sym_record_type]), (STATE 1035, 1,
       [sym__type_not_void_not_function]), (STATE 1039, 1, [sym_function_type]), (STATE 1071, 1,
       [sym__function_type_tail]), (STATE 1184, 1, [sym__type_not_void]), (STATE 2664, 1,
       [sym__type_not_function]), (STATE 2064, 2, [sym_comment, sym_documentation_comment])]),
     (108871, 19, [(ACTIONS 3, 1, [anon_sym_SLASH_SLASH]), (ACTIONS 5, 1,
       [anon_sym_SLASH_STAR]), (ACTIONS 7, 1, [anon_sym_SLASH_SLASH_SLASH]), (ACTIONS 9, 1,
       [sym__block_comment]), (ACTIONS 11, 1, [sym__documentation_block_comment]), (ACTIONS 17,
       1, [anon_sym_LPAREN]), (ACTIONS 33, 1, [sym_void_type]), (ACTIONS 45, 1,
       [anon_sym_Function]), (ACTIONS 3408, 1, [sym_identifier]), (STATE 1463, 1,
       [sym__function_builtin_identifier]), (STATE 1530, 1, [sym__type_name]), (STATE 1605, 1,
       [aux_sym__function_type_tails]), (STATE 1704, 1, [sym__function_type_tail]), (STATE 1796,
       1, [sym__type_not_function]), (STATE 1805, 1, [sym_record_type]), (STATE 1848, 1,
       [sym_function_type]), (STATE 1896, 1, [sym__type_not_void_not_function]), (STATE 3415, 1,
       [sym__type]), (STATE 2065, 2, [sym_comment, sym_documentation_comment])])]"

lemma small_run_743: "small_run 2063 108759 ts_small_parse_table_743 2066 108930"
  by (simp add: small_simps ts_small_parse_table_743_def)

definition ts_small_parse_table_744 :: "small_group list" where
  "ts_small_parse_table_744 = [
     (108930, 19, [(ACTIONS 3, 1, [anon_sym_SLASH_SLASH]), (ACTIONS 5, 1,
       [anon_sym_SLASH_STAR]), (ACTIONS 7, 1, [anon_sym_SLASH_SLASH_SLASH]), (ACTIONS 9, 1,
       [sym__block_comment]), (ACTIONS 11, 1, [sym__documentation_block_comment]), (ACTIONS 33,
       1, [sym_void_type]), (ACTIONS 4546, 1, [sym_identifier]), (ACTIONS 4548, 1,
       [anon_sym_LPAREN]), (ACTIONS 4550, 1, [anon_sym_Function]), (STATE 843, 1,
       [sym__function_builtin_identifier]), (STATE 867, 1, [aux_sym__function_type_tails]),
       (STATE 978, 1, [sym__type_name]), (STATE 1015, 1, [sym_record_type]), (STATE 1035, 1,
       [sym__type_not_void_not_function]), (STATE 1039, 1, [sym_function_type]), (STATE 1071, 1,
       [sym__function_type_tail]), (STATE 1189, 1, [sym__type_not_void]), (STATE 2664, 1,
       [sym__type_not_function]), (STATE 2066, 2, [sym_comment, sym_documentation_comment])]),
     (108989, 9, [(ACTIONS 3, 1, [anon_sym_SLASH_SLASH]), (ACTIONS 5, 1,
       [anon_sym_SLASH_STAR]), (ACTIONS 7, 1, [anon_sym_SLASH_SLASH_SLASH]), (ACTIONS 9, 1,
       [sym__block_comment]), (ACTIONS 11, 1, [sym__documentation_block_comment]), (STATE 2067,
       2, [sym_comment, sym_documentation_comment]), (ACTIONS 2764, 3, [anon_sym_catch,
       anon_sym_with, anon_sym_implements]), (ACTIONS 4283, 4, [anon_sym_Function, anon_sym_this,
       anon_sym_super, sym_identifier]), (ACTIONS 2762, 6, [anon_sym_LBRACE, anon_sym_COMMA,
       anon_sym_LPAREN, anon_sym_GT, anon_sym_DOT, anon_sym_SEMI])]),
     (109028, 19, [(ACTIONS 3, 1, [anon_sym_SLASH_SLASH]), (ACTIONS 5, 1,
       [anon_sym_SLASH_STAR]), (ACTIONS 7, 1, [anon_sym_SLASH_SLASH_SLASH]), (ACTIONS 9, 1,
       [sym__block_comment]), (ACTIONS 11, 1, [sym__documentation_block_comment]), (ACTIONS 17,
       1, [anon_sym_LPAREN]), (ACTIONS 33, 1, [sym_void_type]), (ACTIONS 45, 1,
       [anon_sym_Function]), (ACTIONS 4289, 1, [sym_identifier]), (STATE 1463, 1,
       [sym__function_builtin_identifier]), (STATE 1530, 1, [sym__type_name]), (STATE 1605, 1,
       [aux_sym__function_type_tails]), (STATE 1704, 1, [sym__function_type_tail]), (STATE 1985,
       1, [sym_record_type]), (STATE 2099, 1, [sym__type_not_void_not_function]), (STATE 2145, 1,
       [sym_function_type]), (STATE 2633, 1, [sym__type_not_function]), (STATE 3252, 1,
       [sym__type_not_void]), (STATE 2068, 2, [sym_comment, sym_documentation_comment])]),
     (109087, 19, [(ACTIONS 3, 1, [anon_sym_SLASH_SLASH]), (ACTIONS 5, 1,
       [anon_sym_SLASH_STAR]), (ACTIONS 7, 1, [anon_sym_SLASH_SLASH_SLASH]), (ACTIONS 9, 1,
       [sym__block_comment]), (ACTIONS 11, 1, [sym__documentation_block_comment]), (ACTIONS 17,
       1, [anon_sym_LPAREN]), (ACTIONS 33, 1, [sym_void_type]), (ACTIONS 45, 1,
       [anon_sym_Function]), (ACTIONS 3408, 1, [sym_identifier]), (STATE 1463, 1,
       [sym__function_builtin_identifier]), (STATE 1530, 1, [sym__type_name]), (STATE 1605, 1,
       [aux_sym__function_type_tails]), (STATE 1704, 1, [sym__function_type_tail]), (STATE 1796,
       1, [sym__type_not_function]), (STATE 1805, 1, [sym_record_type]), (STATE 1848, 1,
       [sym_function_type]), (STATE 1896, 1, [sym__type_not_void_not_function]), (STATE 3259, 1,
       [sym__type]), (STATE 2069, 2, [sym_comment, sym_documentation_comment])])]"

lemma small_run_744: "small_run 2066 108930 ts_small_parse_table_744 2070 109146"
  by (simp add: small_simps ts_small_parse_table_744_def)

definition ts_small_parse_table_745 :: "small_group list" where
  "ts_small_parse_table_745 = [
     (109146, 19, [(ACTIONS 3, 1, [anon_sym_SLASH_SLASH]), (ACTIONS 5, 1,
       [anon_sym_SLASH_STAR]), (ACTIONS 7, 1, [anon_sym_SLASH_SLASH_SLASH]), (ACTIONS 9, 1,
       [sym__block_comment]), (ACTIONS 11, 1, [sym__documentation_block_comment]), (ACTIONS 17,
       1, [anon_sym_LPAREN]), (ACTIONS 33, 1, [sym_void_type]), (ACTIONS 45, 1,
       [anon_sym_Function]), (ACTIONS 3408, 1, [sym_identifier]), (STATE 1463, 1,
       [sym__function_builtin_identifier]), (STATE 1530, 1, [sym__type_name]), (STATE 1605, 1,
       [aux_sym__function_type_tails]), (STATE 1704, 1, [sym__function_type_tail]), (STATE 1985,
       1, [sym_record_type]), (STATE 2099, 1, [sym__type_not_void_not_function]), (STATE 2145, 1,
       [sym_function_type]), (STATE 2593, 1, [sym__type_not_void]), (STATE 2633, 1,
       [sym__type_not_function]), (STATE 2070, 2, [sym_comment, sym_documentation_comment])]),
     (109205, 19, [(ACTIONS 3, 1, [anon_sym_SLASH_SLASH]), (ACTIONS 5, 1,
       [anon_sym_SLASH_STAR]), (ACTIONS 7, 1, [anon_sym_SLASH_SLASH_SLASH]), (ACTIONS 9, 1,
       [sym__block_comment]), (ACTIONS 11, 1, [sym__documentation_block_comment]), (ACTIONS 17,
       1, [anon_sym_LPAREN]), (ACTIONS 33, 1, [sym_void_type]), (ACTIONS 45, 1,
       [anon_sym_Function]), (ACTIONS 3408, 1, [sym_identifier]), (STATE 1463, 1,
       [sym__function_builtin_identifier]), (STATE 1530, 1, [sym__type_name]), (STATE 1605, 1,
       [aux_sym__function_type_tails]), (STATE 1704, 1, [sym__function_type_tail]), (STATE 1796,
       1, [sym__type_not_function]), (STATE 1805, 1, [sym_record_type]), (STATE 1848, 1,
       [sym_function_type]), (STATE 1896, 1, [sym__type_not_void_not_function]), (STATE 3192, 1,
       [sym__type]), (STATE 2071, 2, [sym_comment, sym_documentation_comment])]),
     (109264, 19, [(ACTIONS 3, 1, [anon_sym_SLASH_SLASH]), (ACTIONS 5, 1,
       [anon_sym_SLASH_STAR]), (ACTIONS 7, 1, [anon_sym_SLASH_SLASH_SLASH]), (ACTIONS 9, 1,
       [sym__block_comment]), (ACTIONS 11, 1, [sym__documentation_block_comment]), (ACTIONS 17,
       1, [anon_sym_LPAREN]), (ACTIONS 33, 1, [sym_void_type]), (ACTIONS 45, 1,
       [anon_sym_Function]), (ACTIONS 3408, 1, [sym_identifier]), (STATE 1463, 1,
       [sym__function_builtin_identifier]), (STATE 1530, 1, [sym__type_name]), (STATE 1605, 1,
       [aux_sym__function_type_tails]), (STATE 1704, 1, [sym__function_type_tail]), (STATE 1796,
       1, [sym__type_not_function]), (STATE 1805, 1, [sym_record_type]), (STATE 1848, 1,
       [sym_function_type]), (STATE 1896, 1, [sym__type_not_void_not_function]), (STATE 3095, 1,
       [sym__type]), (STATE 2072, 2, [sym_comment, sym_documentation_comment])])]"

lemma small_run_745: "small_run 2070 109146 ts_small_parse_table_745 2073 109323"
  by (simp add: small_simps ts_small_parse_table_745_def)

definition ts_small_parse_table_746 :: "small_group list" where
  "ts_small_parse_table_746 = [
     (109323, 19, [(ACTIONS 3, 1, [anon_sym_SLASH_SLASH]), (ACTIONS 5, 1,
       [anon_sym_SLASH_STAR]), (ACTIONS 7, 1, [anon_sym_SLASH_SLASH_SLASH]), (ACTIONS 9, 1,
       [sym__block_comment]), (ACTIONS 11, 1, [sym__documentation_block_comment]), (ACTIONS 17,
       1, [anon_sym_LPAREN]), (ACTIONS 33, 1, [sym_void_type]), (ACTIONS 45, 1,
       [anon_sym_Function]), (ACTIONS 3408, 1, [sym_identifier]), (STATE 1463, 1,
       [sym__function_builtin_identifier]), (STATE 1605, 1, [aux_sym__function_type_tails]),
       (STATE 1704, 1, [sym__function_type_tail]), (STATE 1796, 1, [sym__type_not_function]),
       (STATE 1805, 1, [sym_record_type]), (STATE 1848, 1, [sym_function_type]), (STATE 1896, 1,
       [sym__type_not_void_not_function]), (STATE 2111, 1, [sym__type_name]), (STATE 3224, 1,
       [sym__type]), (STATE 2073, 2, [sym_comment, sym_documentation_comment])]),
     (109382, 19, [(ACTIONS 3, 1, [anon_sym_SLASH_SLASH]), (ACTIONS 5, 1,
       [anon_sym_SLASH_STAR]), (ACTIONS 7, 1, [anon_sym_SLASH_SLASH_SLASH]), (ACTIONS 9, 1,
       [sym__block_comment]), (ACTIONS 11, 1, [sym__documentation_block_comment]), (ACTIONS 17,
       1, [anon_sym_LPAREN]), (ACTIONS 33, 1, [sym_void_type]), (ACTIONS 45, 1,
       [anon_sym_Function]), (ACTIONS 4289, 1, [sym_identifier]), (STATE 1530, 1,
       [sym__type_name]), (STATE 1704, 1, [sym__function_type_tail]), (STATE 1985, 1,
       [sym_record_type]), (STATE 2099, 1, [sym__type_not_void_not_function]), (STATE 2144, 1,
       [sym__function_builtin_identifier]), (STATE 2145, 1, [sym_function_type]), (STATE 2161, 1,
       [aux_sym__function_type_tails]), (STATE 2596, 1, [sym__type_not_function]), (STATE 2613,
       1, [sym__type_not_void]), (STATE 2074, 2, [sym_comment, sym_documentation_comment])]),
     (109441, 19, [(ACTIONS 3, 1, [anon_sym_SLASH_SLASH]), (ACTIONS 5, 1,
       [anon_sym_SLASH_STAR]), (ACTIONS 7, 1, [anon_sym_SLASH_SLASH_SLASH]), (ACTIONS 9, 1,
       [sym__block_comment]), (ACTIONS 11, 1, [sym__documentation_block_comment]), (ACTIONS 17,
       1, [anon_sym_LPAREN]), (ACTIONS 33, 1, [sym_void_type]), (ACTIONS 45, 1,
       [anon_sym_Function]), (ACTIONS 3408, 1, [sym_identifier]), (STATE 1463, 1,
       [sym__function_builtin_identifier]), (STATE 1530, 1, [sym__type_name]), (STATE 1605, 1,
       [aux_sym__function_type_tails]), (STATE 1704, 1, [sym__function_type_tail]), (STATE 1796,
       1, [sym__type_not_function]), (STATE 1805, 1, [sym_record_type]), (STATE 1848, 1,
       [sym_function_type]), (STATE 1896, 1, [sym__type_not_void_not_function]), (STATE 3018, 1,
       [sym__type]), (STATE 2075, 2, [sym_comment, sym_documentation_comment])])]"

lemma small_run_746: "small_run 2073 109323 ts_small_parse_table_746 2076 109500"
  by (simp add: small_simps ts_small_parse_table_746_def)

definition ts_small_parse_table_747 :: "small_group list" where
  "ts_small_parse_table_747 = [
     (109500, 19, [(ACTIONS 3, 1, [anon_sym_SLASH_SLASH]), (ACTIONS 5, 1,
       [anon_sym_SLASH_STAR]), (ACTIONS 7, 1, [anon_sym_SLASH_SLASH_SLASH]), (ACTIONS 9, 1,
       [sym__block_comment]), (ACTIONS 11, 1, [sym__documentation_block_comment]), (ACTIONS 17,
       1, [anon_sym_LPAREN]), (ACTIONS 33, 1, [sym_void_type]), (ACTIONS 45, 1,
       [anon_sym_Function]), (ACTIONS 3408, 1, [sym_identifier]), (STATE 1463, 1,
       [sym__function_builtin_identifier]), (STATE 1530, 1, [sym__type_name]), (STATE 1605, 1,
       [aux_sym__function_type_tails]), (STATE 1704, 1, [sym__function_type_tail]), (STATE 1796,
       1, [sym__type_not_function]), (STATE 1805, 1, [sym_record_type]), (STATE 1848, 1,
       [sym_function_type]), (STATE 1896, 1, [sym__type_not_void_not_function]), (STATE 3151, 1,
       [sym__type]), (STATE 2076, 2, [sym_comment, sym_documentation_comment])]),
     (109559, 19, [(ACTIONS 3, 1, [anon_sym_SLASH_SLASH]), (ACTIONS 5, 1,
       [anon_sym_SLASH_STAR]), (ACTIONS 7, 1, [anon_sym_SLASH_SLASH_SLASH]), (ACTIONS 9, 1,
       [sym__block_comment]), (ACTIONS 11, 1, [sym__documentation_block_comment]), (ACTIONS 33,
       1, [sym_void_type]), (ACTIONS 4540, 1, [sym_identifier]), (ACTIONS 4542, 1,
       [anon_sym_LPAREN]), (ACTIONS 4544, 1, [anon_sym_Function]), (STATE 1426, 1,
       [sym__function_builtin_identifier]), (STATE 1455, 1, [aux_sym__function_type_tails]),
       (STATE 1511, 1, [sym__type_name]), (STATE 1590, 1, [sym_record_type]), (STATE 1615, 1,
       [sym__function_type_tail]), (STATE 1627, 1, [sym__type_not_void_not_function]), (STATE
       1648, 1, [sym_function_type]), (STATE 1708, 1, [sym__type_not_void]), (STATE 2614, 1,
       [sym__type_not_function]), (STATE 2077, 2, [sym_comment, sym_documentation_comment])]),
     (109618, 7, [(ACTIONS 3, 1, [anon_sym_SLASH_SLASH]), (ACTIONS 5, 1,
       [anon_sym_SLASH_STAR]), (ACTIONS 7, 1, [anon_sym_SLASH_SLASH_SLASH]), (ACTIONS 9, 1,
       [sym__block_comment]), (ACTIONS 11, 1, [sym__documentation_block_comment]), (STATE 2078,
       2, [sym_comment, sym_documentation_comment]), (ACTIONS 4460, 13, [anon_sym_RBRACE,
       anon_sym_COMMA, anon_sym_RBRACK, anon_sym_COLON, anon_sym_LPAREN, anon_sym_RPAREN,
       anon_sym_QMARK, anon_sym_BANG, anon_sym_as, anon_sym_EQ_GT, anon_sym_when,
       anon_sym_AMP_AMP, anon_sym_PIPE_PIPE])]),
     (109653, 19, [(ACTIONS 3, 1, [anon_sym_SLASH_SLASH]), (ACTIONS 5, 1,
       [anon_sym_SLASH_STAR]), (ACTIONS 7, 1, [anon_sym_SLASH_SLASH_SLASH]), (ACTIONS 9, 1,
       [sym__block_comment]), (ACTIONS 11, 1, [sym__documentation_block_comment]), (ACTIONS 17,
       1, [anon_sym_LPAREN]), (ACTIONS 33, 1, [sym_void_type]), (ACTIONS 45, 1,
       [anon_sym_Function]), (ACTIONS 4289, 1, [sym_identifier]), (STATE 1530, 1,
       [sym__type_name]), (STATE 1704, 1, [sym__function_type_tail]), (STATE 1985, 1,
       [sym_record_type]), (STATE 2099, 1, [sym__type_not_void_not_function]), (STATE 2144, 1,
       [sym__function_builtin_identifier]), (STATE 2145, 1, [sym_function_type]), (STATE 2161, 1,
       [aux_sym__function_type_tails]), (STATE 2596, 1, [sym__type_not_function]), (STATE 2669,
       1, [sym__type_not_void]), (STATE 2079, 2, [sym_comment, sym_documentation_comment])])]"

lemma small_run_747: "small_run 2076 109500 ts_small_parse_table_747 2080 109712"
  by (simp add: small_simps ts_small_parse_table_747_def)

definition ts_small_parse_table_748 :: "small_group list" where
  "ts_small_parse_table_748 = [
     (109712, 19, [(ACTIONS 3, 1, [anon_sym_SLASH_SLASH]), (ACTIONS 5, 1,
       [anon_sym_SLASH_STAR]), (ACTIONS 7, 1, [anon_sym_SLASH_SLASH_SLASH]), (ACTIONS 9, 1,
       [sym__block_comment]), (ACTIONS 11, 1, [sym__documentation_block_comment]), (ACTIONS 17,
       1, [anon_sym_LPAREN]), (ACTIONS 33, 1, [sym_void_type]), (ACTIONS 45, 1,
       [anon_sym_Function]), (ACTIONS 3408, 1, [sym_identifier]), (STATE 1463, 1,
       [sym__function_builtin_identifier]), (STATE 1530, 1, [sym__type_name]), (STATE 1605, 1,
       [aux_sym__function_type_tails]), (STATE 1704, 1, [sym__function_type_tail]), (STATE 1796,
       1, [sym__type_not_function]), (STATE 1805, 1, [sym_record_type]), (STATE 1848, 1,
       [sym_function_type]), (STATE 1896, 1, [sym__type_not_void_not_function]), (STATE 3399, 1,
       [sym__type]), (STATE 2080, 2, [sym_comment, sym_documentation_comment])]),
     (109771, 19, [(ACTIONS 3, 1, [anon_sym_SLASH_SLASH]), (ACTIONS 5, 1,
       [anon_sym_SLASH_STAR]), (ACTIONS 7, 1, [anon_sym_SLASH_SLASH_SLASH]), (ACTIONS 9, 1,
       [sym__block_comment]), (ACTIONS 11, 1, [sym__documentation_block_comment]), (ACTIONS 17,
       1, [anon_sym_LPAREN]), (ACTIONS 33, 1, [sym_void_type]), (ACTIONS 45, 1,
       [anon_sym_Function]), (ACTIONS 3408, 1, [sym_identifier]), (STATE 1463, 1,
       [sym__function_builtin_identifier]), (STATE 1530, 1, [sym__type_name]), (STATE 1605, 1,
       [aux_sym__function_type_tails]), (STATE 1704, 1, [sym__function_type_tail]), (STATE 1796,
       1, [sym__type_not_function]), (STATE 1805, 1, [sym_record_type]), (STATE 1848, 1,
       [sym_function_type]), (STATE 1896, 1, [sym__type_not_void_not_function]), (STATE 3502, 1,
       [sym__type]), (STATE 2081, 2, [sym_comment, sym_documentation_comment])]),
     (109830, 19, [(ACTIONS 3, 1, [anon_sym_SLASH_SLASH]), (ACTIONS 5, 1,
       [anon_sym_SLASH_STAR]), (ACTIONS 7, 1, [anon_sym_SLASH_SLASH_SLASH]), (ACTIONS 9, 1,
       [sym__block_comment]), (ACTIONS 11, 1, [sym__documentation_block_comment]), (ACTIONS 17,
       1, [anon_sym_LPAREN]), (ACTIONS 33, 1, [sym_void_type]), (ACTIONS 45, 1,
       [anon_sym_Function]), (ACTIONS 3408, 1, [sym_identifier]), (STATE 1463, 1,
       [sym__function_builtin_identifier]), (STATE 1605, 1, [aux_sym__function_type_tails]),
       (STATE 1704, 1, [sym__function_type_tail]), (STATE 1796, 1, [sym__type_not_function]),
       (STATE 1805, 1, [sym_record_type]), (STATE 1848, 1, [sym_function_type]), (STATE 1896, 1,
       [sym__type_not_void_not_function]), (STATE 2118, 1, [sym__type_name]), (STATE 3072, 1,
       [sym__type]), (STATE 2082, 2, [sym_comment, sym_documentation_comment])])]"

lemma small_run_748: "small_run 2080 109712 ts_small_parse_table_748 2083 109889"
  by (simp add: small_simps ts_small_parse_table_748_def)

definition ts_small_parse_table_749 :: "small_group list" where
  "ts_small_parse_table_749 = [
     (109889, 19, [(ACTIONS 3, 1, [anon_sym_SLASH_SLASH]), (ACTIONS 5, 1,
       [anon_sym_SLASH_STAR]), (ACTIONS 7, 1, [anon_sym_SLASH_SLASH_SLASH]), (ACTIONS 9, 1,
       [sym__block_comment]), (ACTIONS 11, 1, [sym__documentation_block_comment]), (ACTIONS 17,
       1, [anon_sym_LPAREN]), (ACTIONS 33, 1, [sym_void_type]), (ACTIONS 45, 1,
       [anon_sym_Function]), (ACTIONS 3408, 1, [sym_identifier]), (STATE 1463, 1,
       [sym__function_builtin_identifier]), (STATE 1530, 1, [sym__type_name]), (STATE 1605, 1,
       [aux_sym__function_type_tails]), (STATE 1704, 1, [sym__function_type_tail]), (STATE 1985,
       1, [sym_record_type]), (STATE 2099, 1, [sym__type_not_void_not_function]), (STATE 2145, 1,
       [sym_function_type]), (STATE 2633, 1, [sym__type_not_function]), (STATE 2652, 1,
       [sym__type_not_void]), (STATE 2083, 2, [sym_comment, sym_documentation_comment])]),
     (109948, 19, [(ACTIONS 3, 1, [anon_sym_SLASH_SLASH]), (ACTIONS 5, 1,
       [anon_sym_SLASH_STAR]), (ACTIONS 7, 1, [anon_sym_SLASH_SLASH_SLASH]), (ACTIONS 9, 1,
       [sym__block_comment]), (ACTIONS 11, 1, [sym__documentation_block_comment]), (ACTIONS 17,
       1, [anon_sym_LPAREN]), (ACTIONS 33, 1, [sym_void_type]), (ACTIONS 45, 1,
       [anon_sym_Function]), (ACTIONS 3408, 1, [sym_identifier]), (STATE 1463, 1,
       [sym__function_builtin_identifier]), (STATE 1530, 1, [sym__type_name]), (STATE 1605, 1,
       [aux_sym__function_type_tails]), (STATE 1704, 1, [sym__function_type_tail]), (STATE 1796,
       1, [sym__type_not_function]), (STATE 1805, 1, [sym_record_type]), (STATE 1848, 1,
       [sym_function_type]), (STATE 1896, 1, [sym__type_not_void_not_function]), (STATE 3020, 1,
       [sym__type]), (STATE 2084, 2, [sym_comment, sym_documentation_comment])]),
     (110007, 19, [(ACTIONS 3, 1, [anon_sym_SLASH_SLASH]), (ACTIONS 5, 1,
       [anon_sym_SLASH_STAR]), (ACTIONS 7, 1, [anon_sym_SLASH_SLASH_SLASH]), (ACTIONS 9, 1,
       [sym__block_comment]), (ACTIONS 11, 1, [sym__documentation_block_comment]), (ACTIONS 17,
       1, [anon_sym_LPAREN]), (ACTIONS 33, 1, [sym_void_type]), (ACTIONS 45, 1,
       [anon_sym_Function]), (ACTIONS 3408, 1, [sym_identifier]), (STATE 1463, 1,
       [sym__function_builtin_identifier]), (STATE 1530, 1, [sym__type_name]), (STATE 1605, 1,
       [aux_sym__function_type_tails]), (STATE 1704, 1, [sym__function_type_tail]), (STATE 1796,
       1, [sym__type_not_function]), (STATE 1805, 1, [sym_record_type]), (STATE 1848, 1,
       [sym_function_type]), (STATE 1896, 1, [sym__type_not_void_not_function]), (STATE 3023, 1,
       [sym__type]), (STATE 2085, 2, [sym_comment, sym_documentation_comment])])]"

lemma small_run_749: "small_run 2083 109889 ts_small_parse_table_749 2086 110066"
  by (simp add: small_simps ts_small_parse_table_749_def)

definition ts_small_parse_table_750 :: "small_group list" where
  "ts_small_parse_table_750 = [
     (110066, 19, [(ACTIONS 3, 1, [anon_sym_SLASH_SLASH]), (ACTIONS 5, 1,
       [anon_sym_SLASH_STAR]), (ACTIONS 7, 1, [anon_sym_SLASH_SLASH_SLASH]), (ACTIONS 9, 1,
       [sym__block_comment]), (ACTIONS 11, 1, [sym__documentation_block_comment]), (ACTIONS 33,
       1, [sym_void_type]), (ACTIONS 4552, 1, [sym_identifier]), (ACTIONS 4554, 1,
       [anon_sym_LPAREN]), (ACTIONS 4556, 1, [anon_sym_Function]), (STATE 1331, 1,
       [sym__function_builtin_identifier]), (STATE 1366, 1, [aux_sym__function_type_tails]),
       (STATE 1443, 1, [sym__type_name]), (STATE 1476, 1, [sym_record_type]), (STATE 1524, 1,
       [sym_function_type]), (STATE 1533, 1, [sym__type_not_void_not_function]), (STATE 1551, 1,
       [sym__function_type_tail]), (STATE 1595, 1, [sym__type_not_void]), (STATE 2649, 1,
       [sym__type_not_function]), (STATE 2086, 2, [sym_comment, sym_documentation_comment])]),
     (110125, 19, [(ACTIONS 3, 1, [anon_sym_SLASH_SLASH]), (ACTIONS 5, 1,
       [anon_sym_SLASH_STAR]), (ACTIONS 7, 1, [anon_sym_SLASH_SLASH_SLASH]), (ACTIONS 9, 1,
       [sym__block_comment]), (ACTIONS 11, 1, [sym__documentation_block_comment]), (ACTIONS 33,
       1, [sym_void_type]), (ACTIONS 4552, 1, [sym_identifier]), (ACTIONS 4554, 1,
       [anon_sym_LPAREN]), (ACTIONS 4556, 1, [anon_sym_Function]), (STATE 1331, 1,
       [sym__function_builtin_identifier]), (STATE 1366, 1, [aux_sym__function_type_tails]),
       (STATE 1443, 1, [sym__type_name]), (STATE 1476, 1, [sym_record_type]), (STATE 1524, 1,
       [sym_function_type]), (STATE 1533, 1, [sym__type_not_void_not_function]), (STATE 1551, 1,
       [sym__function_type_tail]), (STATE 1594, 1, [sym__type_not_void]), (STATE 2649, 1,
       [sym__type_not_function]), (STATE 2087, 2, [sym_comment, sym_documentation_comment])]),
     (110184, 19, [(ACTIONS 3, 1, [anon_sym_SLASH_SLASH]), (ACTIONS 5, 1,
       [anon_sym_SLASH_STAR]), (ACTIONS 7, 1, [anon_sym_SLASH_SLASH_SLASH]), (ACTIONS 9, 1,
       [sym__block_comment]), (ACTIONS 11, 1, [sym__documentation_block_comment]), (ACTIONS 17,
       1, [anon_sym_LPAREN]), (ACTIONS 33, 1, [sym_void_type]), (ACTIONS 45, 1,
       [anon_sym_Function]), (ACTIONS 3408, 1, [sym_identifier]), (STATE 1463, 1,
       [sym__function_builtin_identifier]), (STATE 1530, 1, [sym__type_name]), (STATE 1605, 1,
       [aux_sym__function_type_tails]), (STATE 1704, 1, [sym__function_type_tail]), (STATE 1796,
       1, [sym__type_not_function]), (STATE 1805, 1, [sym_record_type]), (STATE 1848, 1,
       [sym_function_type]), (STATE 1896, 1, [sym__type_not_void_not_function]), (STATE 2910, 1,
       [sym__type]), (STATE 2088, 2, [sym_comment, sym_documentation_comment])])]"

lemma small_run_750: "small_run 2086 110066 ts_small_parse_table_750 2089 110243"
  by (simp add: small_simps ts_small_parse_table_750_def)

definition ts_small_parse_table_751 :: "small_group list" where
  "ts_small_parse_table_751 = [
     (110243, 19, [(ACTIONS 3, 1, [anon_sym_SLASH_SLASH]), (ACTIONS 5, 1,
       [anon_sym_SLASH_STAR]), (ACTIONS 7, 1, [anon_sym_SLASH_SLASH_SLASH]), (ACTIONS 9, 1,
       [sym__block_comment]), (ACTIONS 11, 1, [sym__documentation_block_comment]), (ACTIONS 33,
       1, [sym_void_type]), (ACTIONS 4558, 1, [sym_identifier]), (ACTIONS 4560, 1,
       [anon_sym_LPAREN]), (ACTIONS 4562, 1, [anon_sym_Function]), (STATE 752, 1,
       [sym__function_builtin_identifier]), (STATE 758, 1, [aux_sym__function_type_tails]),
       (STATE 805, 1, [sym__type_name]), (STATE 816, 1, [sym_record_type]), (STATE 857, 1,
       [sym__type_not_void_not_function]), (STATE 868, 1, [sym__function_type_tail]), (STATE 880,
       1, [sym_function_type]), (STATE 912, 1, [sym__type_not_void]), (STATE 2638, 1,
       [sym__type_not_function]), (STATE 2089, 2, [sym_comment, sym_documentation_comment])]),
     (110302, 19, [(ACTIONS 3, 1, [anon_sym_SLASH_SLASH]), (ACTIONS 5, 1,
       [anon_sym_SLASH_STAR]), (ACTIONS 7, 1, [anon_sym_SLASH_SLASH_SLASH]), (ACTIONS 9, 1,
       [sym__block_comment]), (ACTIONS 11, 1, [sym__documentation_block_comment]), (ACTIONS 33,
       1, [sym_void_type]), (ACTIONS 4558, 1, [sym_identifier]), (ACTIONS 4560, 1,
       [anon_sym_LPAREN]), (ACTIONS 4562, 1, [anon_sym_Function]), (STATE 752, 1,
       [sym__function_builtin_identifier]), (STATE 758, 1, [aux_sym__function_type_tails]),
       (STATE 805, 1, [sym__type_name]), (STATE 816, 1, [sym_record_type]), (STATE 857, 1,
       [sym__type_not_void_not_function]), (STATE 868, 1, [sym__function_type_tail]), (STATE 880,
       1, [sym_function_type]), (STATE 913, 1, [sym__type_not_void]), (STATE 2638, 1,
       [sym__type_not_function]), (STATE 2090, 2, [sym_comment, sym_documentation_comment])]),
     (110361, 19, [(ACTIONS 3, 1, [anon_sym_SLASH_SLASH]), (ACTIONS 5, 1,
       [anon_sym_SLASH_STAR]), (ACTIONS 7, 1, [anon_sym_SLASH_SLASH_SLASH]), (ACTIONS 9, 1,
       [sym__block_comment]), (ACTIONS 11, 1, [sym__documentation_block_comment]), (ACTIONS 17,
       1, [anon_sym_LPAREN]), (ACTIONS 33, 1, [sym_void_type]), (ACTIONS 45, 1,
       [anon_sym_Function]), (ACTIONS 4289, 1, [sym_identifier]), (STATE 1530, 1,
       [sym__type_name]), (STATE 1704, 1, [sym__function_type_tail]), (STATE 1985, 1,
       [sym_record_type]), (STATE 2099, 1, [sym__type_not_void_not_function]), (STATE 2144, 1,
       [sym__function_builtin_identifier]), (STATE 2145, 1, [sym_function_type]), (STATE 2161, 1,
       [aux_sym__function_type_tails]), (STATE 2596, 1, [sym__type_not_function]), (STATE 2607,
       1, [sym__type_not_void]), (STATE 2091, 2, [sym_comment, sym_documentation_comment])])]"

lemma small_run_751: "small_run 2089 110243 ts_small_parse_table_751 2092 110420"
  by (simp add: small_simps ts_small_parse_table_751_def)

definition ts_small_parse_table_752 :: "small_group list" where
  "ts_small_parse_table_752 = [
     (110420, 19, [(ACTIONS 3, 1, [anon_sym_SLASH_SLASH]), (ACTIONS 5, 1,
       [anon_sym_SLASH_STAR]), (ACTIONS 7, 1, [anon_sym_SLASH_SLASH_SLASH]), (ACTIONS 9, 1,
       [sym__block_comment]), (ACTIONS 11, 1, [sym__documentation_block_comment]), (ACTIONS 17,
       1, [anon_sym_LPAREN]), (ACTIONS 33, 1, [sym_void_type]), (ACTIONS 45, 1,
       [anon_sym_Function]), (ACTIONS 3408, 1, [sym_identifier]), (STATE 1463, 1,
       [sym__function_builtin_identifier]), (STATE 1530, 1, [sym__type_name]), (STATE 1605, 1,
       [aux_sym__function_type_tails]), (STATE 1704, 1, [sym__function_type_tail]), (STATE 1796,
       1, [sym__type_not_function]), (STATE 1805, 1, [sym_record_type]), (STATE 1848, 1,
       [sym_function_type]), (STATE 1896, 1, [sym__type_not_void_not_function]), (STATE 3067, 1,
       [sym__type]), (STATE 2092, 2, [sym_comment, sym_documentation_comment])]),
     (110479, 19, [(ACTIONS 3, 1, [anon_sym_SLASH_SLASH]), (ACTIONS 5, 1,
       [anon_sym_SLASH_STAR]), (ACTIONS 7, 1, [anon_sym_SLASH_SLASH_SLASH]), (ACTIONS 9, 1,
       [sym__block_comment]), (ACTIONS 11, 1, [sym__documentation_block_comment]), (ACTIONS 17,
       1, [anon_sym_LPAREN]), (ACTIONS 33, 1, [sym_void_type]), (ACTIONS 45, 1,
       [anon_sym_Function]), (ACTIONS 3408, 1, [sym_identifier]), (STATE 1463, 1,
       [sym__function_builtin_identifier]), (STATE 1530, 1, [sym__type_name]), (STATE 1605, 1,
       [aux_sym__function_type_tails]), (STATE 1704, 1, [sym__function_type_tail]), (STATE 1796,
       1, [sym__type_not_function]), (STATE 1805, 1, [sym_record_type]), (STATE 1848, 1,
       [sym_function_type]), (STATE 1896, 1, [sym__type_not_void_not_function]), (STATE 2217, 1,
       [sym__type]), (STATE 2093, 2, [sym_comment, sym_documentation_comment])]),
     (110538, 19, [(ACTIONS 3, 1, [anon_sym_SLASH_SLASH]), (ACTIONS 5, 1,
       [anon_sym_SLASH_STAR]), (ACTIONS 7, 1, [anon_sym_SLASH_SLASH_SLASH]), (ACTIONS 9, 1,
       [sym__block_comment]), (ACTIONS 11, 1, [sym__documentation_block_comment]), (ACTIONS 17,
       1, [anon_sym_LPAREN]), (ACTIONS 33, 1, [sym_void_type]), (ACTIONS 45, 1,
       [anon_sym_Function]), (ACTIONS 4289, 1, [sym_identifier]), (STATE 1463, 1,
       [sym__function_builtin_identifier]), (STATE 1530, 1, [sym__type_name]), (STATE 1605, 1,
       [aux_sym__function_type_tails]), (STATE 1704, 1, [sym__function_type_tail]), (STATE 1985,
       1, [sym_record_type]), (STATE 2099, 1, [sym__type_not_void_not_function]), (STATE 2145, 1,
       [sym_function_type]), (STATE 2633, 1, [sym__type_not_function]), (STATE 3154, 1,
       [sym__type_not_void]), (STATE 2094, 2, [sym_comment, sym_documentation_comment])])]"

lemma small_run_752: "small_run 2092 110420 ts_small_parse_table_752 2095 110597"
  by (simp add: small_simps ts_small_parse_table_752_def)

definition ts_small_parse_table_753 :: "small_group list" where
  "ts_small_parse_table_753 = [
     (110597, 10, [(ACTIONS 3, 1, [anon_sym_SLASH_SLASH]), (ACTIONS 5, 1,
       [anon_sym_SLASH_STAR]), (ACTIONS 7, 1, [anon_sym_SLASH_SLASH_SLASH]), (ACTIONS 9, 1,
       [sym__block_comment]), (ACTIONS 11, 1, [sym__documentation_block_comment]), (STATE 914, 1,
       [sym_cascade_section]), (STATE 2101, 1, [aux_sym__expression_repeat1]), (ACTIONS 2076, 2,
       [anon_sym_DOT_DOT, anon_sym_QMARK_DOT_DOT]), (STATE 2095, 2, [sym_comment,
       sym_documentation_comment]), (ACTIONS 2557, 9, [anon_sym_RBRACE, anon_sym_COMMA,
       anon_sym_RBRACK, anon_sym_COLON, anon_sym_RPAREN, anon_sym_SEMI, anon_sym_EQ_GT,
       anon_sym_case, anon_sym_else])]),
     (110638, 19, [(ACTIONS 3, 1, [anon_sym_SLASH_SLASH]), (ACTIONS 5, 1,
       [anon_sym_SLASH_STAR]), (ACTIONS 7, 1, [anon_sym_SLASH_SLASH_SLASH]), (ACTIONS 9, 1,
       [sym__block_comment]), (ACTIONS 11, 1, [sym__documentation_block_comment]), (ACTIONS 33,
       1, [sym_void_type]), (ACTIONS 4564, 1, [sym_identifier]), (ACTIONS 4566, 1,
       [anon_sym_LPAREN]), (ACTIONS 4568, 1, [anon_sym_Function]), (STATE 1284, 1,
       [sym__function_builtin_identifier]), (STATE 1306, 1, [aux_sym__function_type_tails]),
       (STATE 1325, 1, [sym__type_name]), (STATE 1358, 1, [sym_record_type]), (STATE 1445, 1,
       [sym__type_not_void_not_function]), (STATE 1448, 1, [sym_function_type]), (STATE 1449, 1,
       [sym__function_type_tail]), (STATE 1501, 1, [sym__type_not_void]), (STATE 2608, 1,
       [sym__type_not_function]), (STATE 2096, 2, [sym_comment, sym_documentation_comment])]),
     (110697, 19, [(ACTIONS 3, 1, [anon_sym_SLASH_SLASH]), (ACTIONS 5, 1,
       [anon_sym_SLASH_STAR]), (ACTIONS 7, 1, [anon_sym_SLASH_SLASH_SLASH]), (ACTIONS 9, 1,
       [sym__block_comment]), (ACTIONS 11, 1, [sym__documentation_block_comment]), (ACTIONS 33,
       1, [sym_void_type]), (ACTIONS 4564, 1, [sym_identifier]), (ACTIONS 4566, 1,
       [anon_sym_LPAREN]), (ACTIONS 4568, 1, [anon_sym_Function]), (STATE 1284, 1,
       [sym__function_builtin_identifier]), (STATE 1306, 1, [aux_sym__function_type_tails]),
       (STATE 1325, 1, [sym__type_name]), (STATE 1358, 1, [sym_record_type]), (STATE 1445, 1,
       [sym__type_not_void_not_function]), (STATE 1448, 1, [sym_function_type]), (STATE 1449, 1,
       [sym__function_type_tail]), (STATE 1502, 1, [sym__type_not_void]), (STATE 2608, 1,
       [sym__type_not_function]), (STATE 2097, 2, [sym_comment, sym_documentation_comment])])]"

lemma small_run_753: "small_run 2095 110597 ts_small_parse_table_753 2098 110756"
  by (simp add: small_simps ts_small_parse_table_753_def)

definition ts_small_parse_table_754 :: "small_group list" where
  "ts_small_parse_table_754 = [
     (110756, 19, [(ACTIONS 3, 1, [anon_sym_SLASH_SLASH]), (ACTIONS 5, 1,
       [anon_sym_SLASH_STAR]), (ACTIONS 7, 1, [anon_sym_SLASH_SLASH_SLASH]), (ACTIONS 9, 1,
       [sym__block_comment]), (ACTIONS 11, 1, [sym__documentation_block_comment]), (ACTIONS 17,
       1, [anon_sym_LPAREN]), (ACTIONS 33, 1, [sym_void_type]), (ACTIONS 45, 1,
       [anon_sym_Function]), (ACTIONS 4289, 1, [sym_identifier]), (STATE 1530, 1,
       [sym__type_name]), (STATE 1704, 1, [sym__function_type_tail]), (STATE 1985, 1,
       [sym_record_type]), (STATE 2099, 1, [sym__type_not_void_not_function]), (STATE 2144, 1,
       [sym__function_builtin_identifier]), (STATE 2145, 1, [sym_function_type]), (STATE 2161, 1,
       [aux_sym__function_type_tails]), (STATE 2595, 1, [sym__type_not_void]), (STATE 2596, 1,
       [sym__type_not_function]), (STATE 2098, 2, [sym_comment, sym_documentation_comment])]),
     (110815, 9, [(ACTIONS 3, 1, [anon_sym_SLASH_SLASH]), (ACTIONS 5, 1,
       [anon_sym_SLASH_STAR]), (ACTIONS 7, 1, [anon_sym_SLASH_SLASH_SLASH]), (ACTIONS 9, 1,
       [sym__block_comment]), (ACTIONS 11, 1, [sym__documentation_block_comment]), (STATE 2099,
       2, [sym_comment, sym_documentation_comment]), (ACTIONS 2546, 3, [anon_sym_catch,
       anon_sym_with, anon_sym_implements]), (ACTIONS 4119, 4, [anon_sym_Function, anon_sym_this,
       anon_sym_super, sym_identifier]), (ACTIONS 2541, 6, [anon_sym_LBRACE, anon_sym_COMMA,
       anon_sym_LPAREN, anon_sym_GT, anon_sym_DOT, anon_sym_SEMI])]),
     (110854, 19, [(ACTIONS 3, 1, [anon_sym_SLASH_SLASH]), (ACTIONS 5, 1,
       [anon_sym_SLASH_STAR]), (ACTIONS 7, 1, [anon_sym_SLASH_SLASH_SLASH]), (ACTIONS 9, 1,
       [sym__block_comment]), (ACTIONS 11, 1, [sym__documentation_block_comment]), (ACTIONS 17,
       1, [anon_sym_LPAREN]), (ACTIONS 33, 1, [sym_void_type]), (ACTIONS 45, 1,
       [anon_sym_Function]), (ACTIONS 4570, 1, [sym_identifier]), (STATE 1463, 1,
       [sym__function_builtin_identifier]), (STATE 1530, 1, [sym__type_name]), (STATE 1605, 1,
       [aux_sym__function_type_tails]), (STATE 1704, 1, [sym__function_type_tail]), (STATE 1796,
       1, [sym__type_not_function]), (STATE 1805, 1, [sym_record_type]), (STATE 1848, 1,
       [sym_function_type]), (STATE 1896, 1, [sym__type_not_void_not_function]), (STATE 3421, 1,
       [sym__type]), (STATE 2100, 2, [sym_comment, sym_documentation_comment])]),
     (110913, 9, [(ACTIONS 3, 1, [anon_sym_SLASH_SLASH]), (ACTIONS 5, 1,
       [anon_sym_SLASH_STAR]), (ACTIONS 7, 1, [anon_sym_SLASH_SLASH_SLASH]), (ACTIONS 9, 1,
       [sym__block_comment]), (ACTIONS 11, 1, [sym__documentation_block_comment]), (STATE 914, 1,
       [sym_cascade_section]), (ACTIONS 4573, 2, [anon_sym_DOT_DOT, anon_sym_QMARK_DOT_DOT]),
       (STATE 2101, 3, [sym_comment, sym_documentation_comment, aux_sym__expression_repeat1]),
       (ACTIONS 2585, 9, [anon_sym_RBRACE, anon_sym_COMMA, anon_sym_RBRACK, anon_sym_COLON,
       anon_sym_RPAREN, anon_sym_SEMI, anon_sym_EQ_GT, anon_sym_case, anon_sym_else])])]"

lemma small_run_754: "small_run 2098 110756 ts_small_parse_table_754 2102 110952"
  by (simp add: small_simps ts_small_parse_table_754_def)

definition ts_small_parse_table_755 :: "small_group list" where
  "ts_small_parse_table_755 = [
     (110952, 7, [(ACTIONS 3, 1, [anon_sym_SLASH_SLASH]), (ACTIONS 5, 1,
       [anon_sym_SLASH_STAR]), (ACTIONS 7, 1, [anon_sym_SLASH_SLASH_SLASH]), (ACTIONS 9, 1,
       [sym__block_comment]), (ACTIONS 11, 1, [sym__documentation_block_comment]), (STATE 2102,
       2, [sym_comment, sym_documentation_comment]), (ACTIONS 4576, 12, [anon_sym_RBRACE,
       anon_sym_COMMA, anon_sym_RBRACK, anon_sym_COLON, anon_sym_RPAREN, anon_sym_QMARK,
       anon_sym_BANG, anon_sym_as, anon_sym_EQ_GT, anon_sym_when, anon_sym_AMP_AMP,
       anon_sym_PIPE_PIPE])]),
     (110986, 18, [(ACTIONS 3, 1, [anon_sym_SLASH_SLASH]), (ACTIONS 5, 1,
       [anon_sym_SLASH_STAR]), (ACTIONS 7, 1, [anon_sym_SLASH_SLASH_SLASH]), (ACTIONS 9, 1,
       [sym__block_comment]), (ACTIONS 11, 1, [sym__documentation_block_comment]), (ACTIONS 3511,
       1, [anon_sym_LT]), (ACTIONS 4578, 1, [anon_sym_LBRACE]), (ACTIONS 4580, 1, [anon_sym_EQ]),
       (ACTIONS 4582, 1, [anon_sym_extends]), (ACTIONS 4584, 1, [anon_sym_with]), (ACTIONS 4586,
       1, [anon_sym_implements]), (STATE 1763, 1, [sym_class_body]), (STATE 2023, 1,
       [sym__implements]), (STATE 2148, 1, [sym_type_parameters]), (STATE 2578, 1,
       [sym_superclass]), (STATE 3074, 1, [sym_interfaces]), (STATE 3248, 1, [sym_mixins]),
       (STATE 2103, 2, [sym_comment, sym_documentation_comment])]),
     (111042, 7, [(ACTIONS 3, 1, [anon_sym_SLASH_SLASH]), (ACTIONS 5, 1,
       [anon_sym_SLASH_STAR]), (ACTIONS 7, 1, [anon_sym_SLASH_SLASH_SLASH]), (ACTIONS 9, 1,
       [sym__block_comment]), (ACTIONS 11, 1, [sym__documentation_block_comment]), (STATE 2104,
       2, [sym_comment, sym_documentation_comment]), (ACTIONS 3082, 12, [anon_sym_RBRACE,
       anon_sym_COMMA, anon_sym_RBRACK, anon_sym_COLON, anon_sym_RPAREN, anon_sym_QMARK,
       anon_sym_BANG, anon_sym_as, anon_sym_EQ_GT, anon_sym_when, anon_sym_AMP_AMP,
       anon_sym_PIPE_PIPE])]),
     (111076, 7, [(ACTIONS 3, 1, [anon_sym_SLASH_SLASH]), (ACTIONS 5, 1,
       [anon_sym_SLASH_STAR]), (ACTIONS 7, 1, [anon_sym_SLASH_SLASH_SLASH]), (ACTIONS 9, 1,
       [sym__block_comment]), (ACTIONS 11, 1, [sym__documentation_block_comment]), (STATE 2105,
       2, [sym_comment, sym_documentation_comment]), (ACTIONS 4588, 12, [anon_sym_RBRACE,
       anon_sym_COMMA, anon_sym_RBRACK, anon_sym_COLON, anon_sym_RPAREN, anon_sym_QMARK,
       anon_sym_BANG, anon_sym_as, anon_sym_EQ_GT, anon_sym_when, anon_sym_AMP_AMP,
       anon_sym_PIPE_PIPE])]),
     (111110, 7, [(ACTIONS 3, 1, [anon_sym_SLASH_SLASH]), (ACTIONS 5, 1,
       [anon_sym_SLASH_STAR]), (ACTIONS 7, 1, [anon_sym_SLASH_SLASH_SLASH]), (ACTIONS 9, 1,
       [sym__block_comment]), (ACTIONS 11, 1, [sym__documentation_block_comment]), (STATE 2106,
       2, [sym_comment, sym_documentation_comment]), (ACTIONS 2818, 12, [anon_sym_RBRACE,
       anon_sym_COMMA, anon_sym_RBRACK, anon_sym_COLON, anon_sym_RPAREN, anon_sym_QMARK,
       anon_sym_BANG, anon_sym_as, anon_sym_EQ_GT, anon_sym_when, anon_sym_AMP_AMP,
       anon_sym_PIPE_PIPE])])]"

lemma small_run_755: "small_run 2102 110952 ts_small_parse_table_755 2107 111144"
  by (simp add: small_simps ts_small_parse_table_755_def)

definition ts_small_parse_table_756 :: "small_group list" where
  "ts_small_parse_table_756 = [
     (111144, 18, [(ACTIONS 3, 1, [anon_sym_SLASH_SLASH]), (ACTIONS 5, 1,
       [anon_sym_SLASH_STAR]), (ACTIONS 7, 1, [anon_sym_SLASH_SLASH_SLASH]), (ACTIONS 9, 1,
       [sym__block_comment]), (ACTIONS 11, 1, [sym__documentation_block_comment]), (ACTIONS 3511,
       1, [anon_sym_LT]), (ACTIONS 4578, 1, [anon_sym_LBRACE]), (ACTIONS 4580, 1, [anon_sym_EQ]),
       (ACTIONS 4582, 1, [anon_sym_extends]), (ACTIONS 4584, 1, [anon_sym_with]), (ACTIONS 4586,
       1, [anon_sym_implements]), (STATE 1784, 1, [sym_class_body]), (STATE 2023, 1,
       [sym__implements]), (STATE 2171, 1, [sym_type_parameters]), (STATE 2544, 1,
       [sym_superclass]), (STATE 3245, 1, [sym_interfaces]), (STATE 3248, 1, [sym_mixins]),
       (STATE 2107, 2, [sym_comment, sym_documentation_comment])]),
     (111200, 7, [(ACTIONS 3, 1, [anon_sym_SLASH_SLASH]), (ACTIONS 5, 1,
       [anon_sym_SLASH_STAR]), (ACTIONS 7, 1, [anon_sym_SLASH_SLASH_SLASH]), (ACTIONS 9, 1,
       [sym__block_comment]), (ACTIONS 11, 1, [sym__documentation_block_comment]), (STATE 2108,
       2, [sym_comment, sym_documentation_comment]), (ACTIONS 4590, 12, [anon_sym_RBRACE,
       anon_sym_COMMA, anon_sym_RBRACK, anon_sym_COLON, anon_sym_RPAREN, anon_sym_QMARK,
       anon_sym_BANG, anon_sym_as, anon_sym_EQ_GT, anon_sym_when, anon_sym_AMP_AMP,
       anon_sym_PIPE_PIPE])]),
     (111234, 7, [(ACTIONS 3, 1, [anon_sym_SLASH_SLASH]), (ACTIONS 5, 1,
       [anon_sym_SLASH_STAR]), (ACTIONS 7, 1, [anon_sym_SLASH_SLASH_SLASH]), (ACTIONS 9, 1,
       [sym__block_comment]), (ACTIONS 11, 1, [sym__documentation_block_comment]), (STATE 2109,
       2, [sym_comment, sym_documentation_comment]), (ACTIONS 1879, 12, [anon_sym_RBRACE,
       anon_sym_COMMA, anon_sym_RBRACK, anon_sym_COLON, anon_sym_RPAREN, anon_sym_QMARK,
       anon_sym_BANG, anon_sym_as, anon_sym_EQ_GT, anon_sym_when, anon_sym_AMP_AMP,
       anon_sym_PIPE_PIPE])]),
     (111268, 7, [(ACTIONS 3, 1, [anon_sym_SLASH_SLASH]), (ACTIONS 5, 1,
       [anon_sym_SLASH_STAR]), (ACTIONS 7, 1, [anon_sym_SLASH_SLASH_SLASH]), (ACTIONS 9, 1,
       [sym__block_comment]), (ACTIONS 11, 1, [sym__documentation_block_comment]), (STATE 2110,
       2, [sym_comment, sym_documentation_comment]), (ACTIONS 4592, 12, [anon_sym_RBRACE,
       anon_sym_COMMA, anon_sym_RBRACK, anon_sym_COLON, anon_sym_RPAREN, anon_sym_QMARK,
       anon_sym_BANG, anon_sym_as, anon_sym_EQ_GT, anon_sym_when, anon_sym_AMP_AMP,
       anon_sym_PIPE_PIPE])])]"

lemma small_run_756: "small_run 2107 111144 ts_small_parse_table_756 2111 111302"
  by (simp add: small_simps ts_small_parse_table_756_def)

definition ts_small_parse_table_757 :: "small_group list" where
  "ts_small_parse_table_757 = [
     (111302, 17, [(ACTIONS 3, 1, [anon_sym_SLASH_SLASH]), (ACTIONS 5, 1,
       [anon_sym_SLASH_STAR]), (ACTIONS 7, 1, [anon_sym_SLASH_SLASH_SLASH]), (ACTIONS 9, 1,
       [sym__block_comment]), (ACTIONS 11, 1, [sym__documentation_block_comment]), (ACTIONS 111,
       1, [anon_sym_LT]), (ACTIONS 2154, 1, [anon_sym_QMARK]), (ACTIONS 4278, 1,
       [anon_sym_LPAREN]), (ACTIONS 4594, 1, [anon_sym_EQ]), (STATE 1664, 1,
       [sym_type_arguments]), (STATE 1718, 1, [sym_nullable_type]), (STATE 2016, 1,
       [sym__strict_formal_parameter_list]), (STATE 2020, 1, [sym_formal_parameter_list]), (STATE
       2604, 1, [sym_type_parameters]), (STATE 3502, 1, [sym__formal_parameter_part]), (ACTIONS
       2539, 2, [anon_sym_Function, sym_identifier]), (STATE 2111, 2, [sym_comment,
       sym_documentation_comment])]),
     (111356, 13, [(ACTIONS 3, 1, [anon_sym_SLASH_SLASH]), (ACTIONS 5, 1,
       [anon_sym_SLASH_STAR]), (ACTIONS 7, 1, [anon_sym_SLASH_SLASH_SLASH]), (ACTIONS 9, 1,
       [sym__block_comment]), (ACTIONS 11, 1, [sym__documentation_block_comment]), (ACTIONS 3511,
       1, [anon_sym_LT]), (ACTIONS 4278, 1, [anon_sym_LPAREN]), (STATE 2016, 1,
       [sym__strict_formal_parameter_list]), (STATE 2020, 1, [sym_formal_parameter_list]), (STATE
       2524, 1, [sym__formal_parameter_part]), (STATE 2932, 1, [sym_type_parameters]), (STATE
       2112, 2, [sym_comment, sym_documentation_comment]), (ACTIONS 4596, 6, [anon_sym_RBRACE,
       anon_sym_COMMA, anon_sym_RBRACK, anon_sym_COLON, anon_sym_RPAREN, anon_sym_EQ])]),
     (111402, 8, [(ACTIONS 3, 1, [anon_sym_SLASH_SLASH]), (ACTIONS 5, 1,
       [anon_sym_SLASH_STAR]), (ACTIONS 7, 1, [anon_sym_SLASH_SLASH_SLASH]), (ACTIONS 9, 1,
       [sym__block_comment]), (ACTIONS 11, 1, [sym__documentation_block_comment]), (ACTIONS 4600,
       2, [anon_sym_LPAREN, anon_sym_AT]), (STATE 2113, 2, [sym_comment,
       sym_documentation_comment]), (ACTIONS 4598, 10, [anon_sym_final, sym_void_type,
       anon_sym_var, anon_sym_covariant, anon_sym_Function, sym_const_builtin, anon_sym_late,
       anon_sym_this, anon_sym_super, sym_identifier])]),
     (111438, 7, [(ACTIONS 3, 1, [anon_sym_SLASH_SLASH]), (ACTIONS 5, 1,
       [anon_sym_SLASH_STAR]), (ACTIONS 7, 1, [anon_sym_SLASH_SLASH_SLASH]), (ACTIONS 9, 1,
       [sym__block_comment]), (ACTIONS 11, 1, [sym__documentation_block_comment]), (STATE 2114,
       2, [sym_comment, sym_documentation_comment]), (ACTIONS 2988, 12, [anon_sym_RBRACE,
       anon_sym_COMMA, anon_sym_RBRACK, anon_sym_COLON, anon_sym_RPAREN, anon_sym_QMARK,
       anon_sym_BANG, anon_sym_as, anon_sym_EQ_GT, anon_sym_when, anon_sym_AMP_AMP,
       anon_sym_PIPE_PIPE])])]"

lemma small_run_757: "small_run 2111 111302 ts_small_parse_table_757 2115 111472"
  by (simp add: small_simps ts_small_parse_table_757_def)

definition ts_small_parse_table_758 :: "small_group list" where
  "ts_small_parse_table_758 = [
     (111472, 7, [(ACTIONS 3, 1, [anon_sym_SLASH_SLASH]), (ACTIONS 5, 1,
       [anon_sym_SLASH_STAR]), (ACTIONS 7, 1, [anon_sym_SLASH_SLASH_SLASH]), (ACTIONS 9, 1,
       [sym__block_comment]), (ACTIONS 11, 1, [sym__documentation_block_comment]), (STATE 2115,
       2, [sym_comment, sym_documentation_comment]), (ACTIONS 4602, 12, [anon_sym_RBRACE,
       anon_sym_COMMA, anon_sym_RBRACK, anon_sym_COLON, anon_sym_RPAREN, anon_sym_QMARK,
       anon_sym_BANG, anon_sym_as, anon_sym_EQ_GT, anon_sym_when, anon_sym_AMP_AMP,
       anon_sym_PIPE_PIPE])]),
     (111506, 13, [(ACTIONS 3, 1, [anon_sym_SLASH_SLASH]), (ACTIONS 5, 1,
       [anon_sym_SLASH_STAR]), (ACTIONS 7, 1, [anon_sym_SLASH_SLASH_SLASH]), (ACTIONS 9, 1,
       [sym__block_comment]), (ACTIONS 11, 1, [sym__documentation_block_comment]), (ACTIONS 3511,
       1, [anon_sym_LT]), (ACTIONS 4278, 1, [anon_sym_LPAREN]), (STATE 2016, 1,
       [sym__strict_formal_parameter_list]), (STATE 2020, 1, [sym_formal_parameter_list]), (STATE
       2525, 1, [sym__formal_parameter_part]), (STATE 2932, 1, [sym_type_parameters]), (STATE
       2116, 2, [sym_comment, sym_documentation_comment]), (ACTIONS 4604, 6, [anon_sym_RBRACE,
       anon_sym_COMMA, anon_sym_RBRACK, anon_sym_COLON, anon_sym_RPAREN, anon_sym_EQ])]),
     (111552, 12, [(ACTIONS 3, 1, [anon_sym_SLASH_SLASH]), (ACTIONS 5, 1,
       [anon_sym_SLASH_STAR]), (ACTIONS 7, 1, [anon_sym_SLASH_SLASH_SLASH]), (ACTIONS 9, 1,
       [sym__block_comment]), (ACTIONS 11, 1, [sym__documentation_block_comment]), (ACTIONS 2154,
       1, [anon_sym_QMARK]), (ACTIONS 4606, 1, [anon_sym_LPAREN]), (ACTIONS 4608, 1,
       [anon_sym_DOT]), (STATE 1721, 1, [sym_nullable_type]), (ACTIONS 2550, 2, [anon_sym_COMMA,
       anon_sym_RPAREN]), (STATE 2117, 2, [sym_comment, sym_documentation_comment]), (ACTIONS
       2555, 6, [anon_sym_Function, anon_sym_get, anon_sym_set, anon_sym_this, anon_sym_super,
       sym_identifier])]),
     (111596, 17, [(ACTIONS 3, 1, [anon_sym_SLASH_SLASH]), (ACTIONS 5, 1,
       [anon_sym_SLASH_STAR]), (ACTIONS 7, 1, [anon_sym_SLASH_SLASH_SLASH]), (ACTIONS 9, 1,
       [sym__block_comment]), (ACTIONS 11, 1, [sym__documentation_block_comment]), (ACTIONS 111,
       1, [anon_sym_LT]), (ACTIONS 2154, 1, [anon_sym_QMARK]), (ACTIONS 4278, 1,
       [anon_sym_LPAREN]), (ACTIONS 4610, 1, [anon_sym_EQ]), (STATE 1664, 1,
       [sym_type_arguments]), (STATE 1718, 1, [sym_nullable_type]), (STATE 2016, 1,
       [sym__strict_formal_parameter_list]), (STATE 2020, 1, [sym_formal_parameter_list]), (STATE
       2602, 1, [sym_type_parameters]), (STATE 3505, 1, [sym__formal_parameter_part]), (ACTIONS
       2539, 2, [anon_sym_Function, sym_identifier]), (STATE 2118, 2, [sym_comment,
       sym_documentation_comment])])]"

lemma small_run_758: "small_run 2115 111472 ts_small_parse_table_758 2119 111650"
  by (simp add: small_simps ts_small_parse_table_758_def)

definition ts_small_parse_table_759 :: "small_group list" where
  "ts_small_parse_table_759 = [
     (111650, 7, [(ACTIONS 3, 1, [anon_sym_SLASH_SLASH]), (ACTIONS 5, 1,
       [anon_sym_SLASH_STAR]), (ACTIONS 7, 1, [anon_sym_SLASH_SLASH_SLASH]), (ACTIONS 9, 1,
       [sym__block_comment]), (ACTIONS 11, 1, [sym__documentation_block_comment]), (STATE 2119,
       2, [sym_comment, sym_documentation_comment]), (ACTIONS 4612, 12, [anon_sym_RBRACE,
       anon_sym_COMMA, anon_sym_RBRACK, anon_sym_COLON, anon_sym_RPAREN, anon_sym_QMARK,
       anon_sym_BANG, anon_sym_as, anon_sym_EQ_GT, anon_sym_when, anon_sym_AMP_AMP,
       anon_sym_PIPE_PIPE])]),
     (111684, 7, [(ACTIONS 3, 1, [anon_sym_SLASH_SLASH]), (ACTIONS 5, 1,
       [anon_sym_SLASH_STAR]), (ACTIONS 7, 1, [anon_sym_SLASH_SLASH_SLASH]), (ACTIONS 9, 1,
       [sym__block_comment]), (ACTIONS 11, 1, [sym__documentation_block_comment]), (STATE 2120,
       2, [sym_comment, sym_documentation_comment]), (ACTIONS 2814, 12, [anon_sym_RBRACE,
       anon_sym_COMMA, anon_sym_RBRACK, anon_sym_COLON, anon_sym_RPAREN, anon_sym_QMARK,
       anon_sym_BANG, anon_sym_as, anon_sym_EQ_GT, anon_sym_when, anon_sym_AMP_AMP,
       anon_sym_PIPE_PIPE])]),
     (111718, 7, [(ACTIONS 3, 1, [anon_sym_SLASH_SLASH]), (ACTIONS 5, 1,
       [anon_sym_SLASH_STAR]), (ACTIONS 7, 1, [anon_sym_SLASH_SLASH_SLASH]), (ACTIONS 9, 1,
       [sym__block_comment]), (ACTIONS 11, 1, [sym__documentation_block_comment]), (STATE 2121,
       2, [sym_comment, sym_documentation_comment]), (ACTIONS 1819, 12, [anon_sym_RBRACE,
       anon_sym_COMMA, anon_sym_RBRACK, anon_sym_COLON, anon_sym_RPAREN, anon_sym_QMARK,
       anon_sym_BANG, anon_sym_as, anon_sym_EQ_GT, anon_sym_when, anon_sym_AMP_AMP,
       anon_sym_PIPE_PIPE])]),
     (111752, 7, [(ACTIONS 3, 1, [anon_sym_SLASH_SLASH]), (ACTIONS 5, 1,
       [anon_sym_SLASH_STAR]), (ACTIONS 7, 1, [anon_sym_SLASH_SLASH_SLASH]), (ACTIONS 9, 1,
       [sym__block_comment]), (ACTIONS 11, 1, [sym__documentation_block_comment]), (STATE 2122,
       2, [sym_comment, sym_documentation_comment]), (ACTIONS 2960, 12, [anon_sym_RBRACE,
       anon_sym_COMMA, anon_sym_RBRACK, anon_sym_COLON, anon_sym_RPAREN, anon_sym_QMARK,
       anon_sym_BANG, anon_sym_as, anon_sym_EQ_GT, anon_sym_when, anon_sym_AMP_AMP,
       anon_sym_PIPE_PIPE])]),
     (111786, 7, [(ACTIONS 3, 1, [anon_sym_SLASH_SLASH]), (ACTIONS 5, 1,
       [anon_sym_SLASH_STAR]), (ACTIONS 7, 1, [anon_sym_SLASH_SLASH_SLASH]), (ACTIONS 9, 1,
       [sym__block_comment]), (ACTIONS 11, 1, [sym__documentation_block_comment]), (STATE 2123,
       2, [sym_comment, sym_documentation_comment]), (ACTIONS 4614, 12, [anon_sym_RBRACE,
       anon_sym_COMMA, anon_sym_RBRACK, anon_sym_COLON, anon_sym_RPAREN, anon_sym_QMARK,
       anon_sym_BANG, anon_sym_as, anon_sym_EQ_GT, anon_sym_when, anon_sym_AMP_AMP,
       anon_sym_PIPE_PIPE])])]"

lemma small_run_759: "small_run 2119 111650 ts_small_parse_table_759 2124 111820"
  by (simp add: small_simps ts_small_parse_table_759_def)

definition ts_small_parse_table_760 :: "small_group list" where
  "ts_small_parse_table_760 = [
     (111820, 7, [(ACTIONS 3, 1, [anon_sym_SLASH_SLASH]), (ACTIONS 5, 1,
       [anon_sym_SLASH_STAR]), (ACTIONS 7, 1, [anon_sym_SLASH_SLASH_SLASH]), (ACTIONS 9, 1,
       [sym__block_comment]), (ACTIONS 11, 1, [sym__documentation_block_comment]), (STATE 2124,
       2, [sym_comment, sym_documentation_comment]), (ACTIONS 4317, 12, [anon_sym_RBRACE,
       anon_sym_COMMA, anon_sym_RBRACK, anon_sym_COLON, anon_sym_RPAREN, anon_sym_QMARK,
       anon_sym_BANG, anon_sym_as, anon_sym_EQ_GT, anon_sym_when, anon_sym_AMP_AMP,
       anon_sym_PIPE_PIPE])]),
     (111854, 7, [(ACTIONS 3, 1, [anon_sym_SLASH_SLASH]), (ACTIONS 5, 1,
       [anon_sym_SLASH_STAR]), (ACTIONS 7, 1, [anon_sym_SLASH_SLASH_SLASH]), (ACTIONS 9, 1,
       [sym__block_comment]), (ACTIONS 11, 1, [sym__documentation_block_comment]), (STATE 2125,
       2, [sym_comment, sym_documentation_comment]), (ACTIONS 3058, 12, [anon_sym_RBRACE,
       anon_sym_COMMA, anon_sym_RBRACK, anon_sym_COLON, anon_sym_RPAREN, anon_sym_QMARK,
       anon_sym_BANG, anon_sym_as, anon_sym_EQ_GT, anon_sym_when, anon_sym_AMP_AMP,
       anon_sym_PIPE_PIPE])]),
     (111888, 14, [(ACTIONS 3, 1, [anon_sym_SLASH_SLASH]), (ACTIONS 5, 1,
       [anon_sym_SLASH_STAR]), (ACTIONS 7, 1, [anon_sym_SLASH_SLASH_SLASH]), (ACTIONS 9, 1,
       [sym__block_comment]), (ACTIONS 11, 1, [sym__documentation_block_comment]), (ACTIONS 2154,
       1, [anon_sym_QMARK]), (ACTIONS 3161, 1, [anon_sym_LT]), (ACTIONS 4422, 1,
       [anon_sym_LPAREN]), (ACTIONS 4616, 1, [anon_sym_DOT]), (STATE 1718, 1,
       [sym_nullable_type]), (STATE 2117, 1, [sym_type_arguments]), (ACTIONS 2531, 2,
       [anon_sym_COMMA, anon_sym_RPAREN]), (STATE 2126, 2, [sym_comment,
       sym_documentation_comment]), (ACTIONS 2539, 4, [anon_sym_Function, anon_sym_this,
       anon_sym_super, sym_identifier])]),
     (111936, 7, [(ACTIONS 3, 1, [anon_sym_SLASH_SLASH]), (ACTIONS 5, 1,
       [anon_sym_SLASH_STAR]), (ACTIONS 7, 1, [anon_sym_SLASH_SLASH_SLASH]), (ACTIONS 9, 1,
       [sym__block_comment]), (ACTIONS 11, 1, [sym__documentation_block_comment]), (STATE 2127,
       2, [sym_comment, sym_documentation_comment]), (ACTIONS 4618, 12, [anon_sym_RBRACE,
       anon_sym_COMMA, anon_sym_RBRACK, anon_sym_COLON, anon_sym_RPAREN, anon_sym_QMARK,
       anon_sym_BANG, anon_sym_as, anon_sym_EQ_GT, anon_sym_when, anon_sym_AMP_AMP,
       anon_sym_PIPE_PIPE])]),
     (111970, 7, [(ACTIONS 3, 1, [anon_sym_SLASH_SLASH]), (ACTIONS 5, 1,
       [anon_sym_SLASH_STAR]), (ACTIONS 7, 1, [anon_sym_SLASH_SLASH_SLASH]), (ACTIONS 9, 1,
       [sym__block_comment]), (ACTIONS 11, 1, [sym__documentation_block_comment]), (STATE 2128,
       2, [sym_comment, sym_documentation_comment]), (ACTIONS 3054, 12, [anon_sym_RBRACE,
       anon_sym_COMMA, anon_sym_RBRACK, anon_sym_COLON, anon_sym_RPAREN, anon_sym_QMARK,
       anon_sym_BANG, anon_sym_as, anon_sym_EQ_GT, anon_sym_when, anon_sym_AMP_AMP,
       anon_sym_PIPE_PIPE])])]"

lemma small_run_760: "small_run 2124 111820 ts_small_parse_table_760 2129 112004"
  by (simp add: small_simps ts_small_parse_table_760_def)

definition ts_small_parse_table_761 :: "small_group list" where
  "ts_small_parse_table_761 = [
     (112004, 10, [(ACTIONS 3, 1, [anon_sym_SLASH_SLASH]), (ACTIONS 5, 1,
       [anon_sym_SLASH_STAR]), (ACTIONS 7, 1, [anon_sym_SLASH_SLASH_SLASH]), (ACTIONS 9, 1,
       [sym__block_comment]), (ACTIONS 11, 1, [sym__documentation_block_comment]), (ACTIONS 4622,
       1, [anon_sym_QMARK]), (ACTIONS 4624, 1, [anon_sym_BANG]), (ACTIONS 4626, 1,
       [anon_sym_as]), (STATE 2129, 2, [sym_comment, sym_documentation_comment]), (ACTIONS 4620,
       9, [anon_sym_RBRACE, anon_sym_COMMA, anon_sym_RBRACK, anon_sym_COLON, anon_sym_RPAREN,
       anon_sym_EQ_GT, anon_sym_when, anon_sym_AMP_AMP, anon_sym_PIPE_PIPE])]),
     (112044, 7, [(ACTIONS 3, 1, [anon_sym_SLASH_SLASH]), (ACTIONS 5, 1,
       [anon_sym_SLASH_STAR]), (ACTIONS 7, 1, [anon_sym_SLASH_SLASH_SLASH]), (ACTIONS 9, 1,
       [sym__block_comment]), (ACTIONS 11, 1, [sym__documentation_block_comment]), (STATE 2130,
       2, [sym_comment, sym_documentation_comment]), (ACTIONS 4628, 12, [anon_sym_RBRACE,
       anon_sym_COMMA, anon_sym_RBRACK, anon_sym_COLON, anon_sym_RPAREN, anon_sym_QMARK,
       anon_sym_BANG, anon_sym_as, anon_sym_EQ_GT, anon_sym_when, anon_sym_AMP_AMP,
       anon_sym_PIPE_PIPE])]),
     (112078, 13, [(ACTIONS 3, 1, [anon_sym_SLASH_SLASH]), (ACTIONS 5, 1,
       [anon_sym_SLASH_STAR]), (ACTIONS 7, 1, [anon_sym_SLASH_SLASH_SLASH]), (ACTIONS 9, 1,
       [sym__block_comment]), (ACTIONS 11, 1, [sym__documentation_block_comment]), (ACTIONS 3511,
       1, [anon_sym_LT]), (ACTIONS 4278, 1, [anon_sym_LPAREN]), (STATE 2016, 1,
       [sym__strict_formal_parameter_list]), (STATE 2020, 1, [sym_formal_parameter_list]), (STATE
       2447, 1, [sym__formal_parameter_part]), (STATE 2932, 1, [sym_type_parameters]), (STATE
       2131, 2, [sym_comment, sym_documentation_comment]), (ACTIONS 4630, 6, [anon_sym_RBRACE,
       anon_sym_COMMA, anon_sym_RBRACK, anon_sym_COLON, anon_sym_RPAREN, anon_sym_EQ])]),
     (112124, 13, [(ACTIONS 3, 1, [anon_sym_SLASH_SLASH]), (ACTIONS 5, 1,
       [anon_sym_SLASH_STAR]), (ACTIONS 7, 1, [anon_sym_SLASH_SLASH_SLASH]), (ACTIONS 9, 1,
       [sym__block_comment]), (ACTIONS 11, 1, [sym__documentation_block_comment]), (ACTIONS 3511,
       1, [anon_sym_LT]), (ACTIONS 4278, 1, [anon_sym_LPAREN]), (STATE 2016, 1,
       [sym__strict_formal_parameter_list]), (STATE 2020, 1, [sym_formal_parameter_list]), (STATE
       2454, 1, [sym__formal_parameter_part]), (STATE 2932, 1, [sym_type_parameters]), (STATE
       2132, 2, [sym_comment, sym_documentation_comment]), (ACTIONS 4632, 6, [anon_sym_RBRACE,
       anon_sym_COMMA, anon_sym_RBRACK, anon_sym_COLON, anon_sym_RPAREN, anon_sym_EQ])]),
     (112170, 7, [(ACTIONS 3, 1, [anon_sym_SLASH_SLASH]), (ACTIONS 5, 1,
       [anon_sym_SLASH_STAR]), (ACTIONS 7, 1, [anon_sym_SLASH_SLASH_SLASH]), (ACTIONS 9, 1,
       [sym__block_comment]), (ACTIONS 11, 1, [sym__documentation_block_comment]), (STATE 2133,
       2, [sym_comment, sym_documentation_comment]), (ACTIONS 3050, 12, [anon_sym_RBRACE,
       anon_sym_COMMA, anon_sym_RBRACK, anon_sym_COLON, anon_sym_RPAREN, anon_sym_QMARK,
       anon_sym_BANG, anon_sym_as, anon_sym_EQ_GT, anon_sym_when, anon_sym_AMP_AMP,
       anon_sym_PIPE_PIPE])])]"

lemma small_run_761: "small_run 2129 112004 ts_small_parse_table_761 2134 112204"
  by (simp add: small_simps ts_small_parse_table_761_def)

definition ts_small_parse_table_762 :: "small_group list" where
  "ts_small_parse_table_762 = [
     (112204, 7, [(ACTIONS 3, 1, [anon_sym_SLASH_SLASH]), (ACTIONS 5, 1,
       [anon_sym_SLASH_STAR]), (ACTIONS 7, 1, [anon_sym_SLASH_SLASH_SLASH]), (ACTIONS 9, 1,
       [sym__block_comment]), (ACTIONS 11, 1, [sym__documentation_block_comment]), (STATE 2134,
       2, [sym_comment, sym_documentation_comment]), (ACTIONS 3046, 12, [anon_sym_RBRACE,
       anon_sym_COMMA, anon_sym_RBRACK, anon_sym_COLON, anon_sym_RPAREN, anon_sym_QMARK,
       anon_sym_BANG, anon_sym_as, anon_sym_EQ_GT, anon_sym_when, anon_sym_AMP_AMP,
       anon_sym_PIPE_PIPE])]),
     (112238, 11, [(ACTIONS 3, 1, [anon_sym_SLASH_SLASH]), (ACTIONS 5, 1,
       [anon_sym_SLASH_STAR]), (ACTIONS 7, 1, [anon_sym_SLASH_SLASH_SLASH]), (ACTIONS 9, 1,
       [sym__block_comment]), (ACTIONS 11, 1, [sym__documentation_block_comment]), (STATE 1962,
       1, [sym_cascade_section]), (STATE 2140, 1, [aux_sym__expression_repeat1]), (ACTIONS 2344,
       2, [anon_sym_DOT_DOT, anon_sym_QMARK_DOT_DOT]), (STATE 2135, 2, [sym_comment,
       sym_documentation_comment]), (ACTIONS 2559, 3, [anon_sym_QMARK, anon_sym_DOT,
       anon_sym_QMARK_DOT]), (ACTIONS 2557, 4, [anon_sym_LBRACK, anon_sym_LPAREN, anon_sym_LT,
       anon_sym_BANG])]),
     (112279, 10, [(ACTIONS 3, 1, [anon_sym_SLASH_SLASH]), (ACTIONS 5, 1,
       [anon_sym_SLASH_STAR]), (ACTIONS 7, 1, [anon_sym_SLASH_SLASH_SLASH]), (ACTIONS 9, 1,
       [sym__block_comment]), (ACTIONS 11, 1, [sym__documentation_block_comment]), (ACTIONS 4636,
       1, [anon_sym_AMP_AMP]), (STATE 437, 1, [sym_logical_and_operator]), (STATE 2143, 1,
       [aux_sym__logical_and_pattern_repeat1]), (STATE 2136, 2, [sym_comment,
       sym_documentation_comment]), (ACTIONS 4634, 8, [anon_sym_RBRACE, anon_sym_COMMA,
       anon_sym_RBRACK, anon_sym_COLON, anon_sym_RPAREN, anon_sym_EQ_GT, anon_sym_when,
       anon_sym_PIPE_PIPE])]),
     (112318, 11, [(ACTIONS 3, 1, [anon_sym_SLASH_SLASH]), (ACTIONS 5, 1,
       [anon_sym_SLASH_STAR]), (ACTIONS 7, 1, [anon_sym_SLASH_SLASH_SLASH]), (ACTIONS 9, 1,
       [sym__block_comment]), (ACTIONS 11, 1, [sym__documentation_block_comment]), (ACTIONS 4640,
       1, [anon_sym_async]), (STATE 1962, 1, [sym_cascade_section]), (STATE 2142, 1,
       [aux_sym__expression_repeat1]), (ACTIONS 2210, 2, [anon_sym_DOT_DOT,
       anon_sym_QMARK_DOT_DOT]), (STATE 2137, 2, [sym_comment, sym_documentation_comment]),
       (ACTIONS 4638, 6, [anon_sym_LBRACE, anon_sym_COMMA, anon_sym_SEMI, anon_sym_EQ_GT,
       anon_sym_async_STAR, anon_sym_sync_STAR])]),
     (112359, 11, [(ACTIONS 3, 1, [anon_sym_SLASH_SLASH]), (ACTIONS 5, 1,
       [anon_sym_SLASH_STAR]), (ACTIONS 7, 1, [anon_sym_SLASH_SLASH_SLASH]), (ACTIONS 9, 1,
       [sym__block_comment]), (ACTIONS 11, 1, [sym__documentation_block_comment]), (ACTIONS 4644,
       1, [anon_sym_async]), (STATE 1962, 1, [sym_cascade_section]), (STATE 2142, 1,
       [aux_sym__expression_repeat1]), (ACTIONS 2210, 2, [anon_sym_DOT_DOT,
       anon_sym_QMARK_DOT_DOT]), (STATE 2138, 2, [sym_comment, sym_documentation_comment]),
       (ACTIONS 4642, 6, [anon_sym_LBRACE, anon_sym_COMMA, anon_sym_SEMI, anon_sym_EQ_GT,
       anon_sym_async_STAR, anon_sym_sync_STAR])])]"

lemma small_run_762: "small_run 2134 112204 ts_small_parse_table_762 2139 112400"
  by (simp add: small_simps ts_small_parse_table_762_def)

definition ts_small_parse_table_763 :: "small_group list" where
  "ts_small_parse_table_763 = [
     (112400, 17, [(ACTIONS 3, 1, [anon_sym_SLASH_SLASH]), (ACTIONS 5, 1,
       [anon_sym_SLASH_STAR]), (ACTIONS 7, 1, [anon_sym_SLASH_SLASH_SLASH]), (ACTIONS 9, 1,
       [sym__block_comment]), (ACTIONS 11, 1, [sym__documentation_block_comment]), (ACTIONS 3511,
       1, [anon_sym_LT]), (ACTIONS 4578, 1, [anon_sym_LBRACE]), (ACTIONS 4582, 1,
       [anon_sym_extends]), (ACTIONS 4584, 1, [anon_sym_with]), (ACTIONS 4586, 1,
       [anon_sym_implements]), (STATE 1763, 1, [sym_class_body]), (STATE 2023, 1,
       [sym__implements]), (STATE 2224, 1, [sym_type_parameters]), (STATE 2578, 1,
       [sym_superclass]), (STATE 3074, 1, [sym_interfaces]), (STATE 3248, 1, [sym_mixins]),
       (STATE 2139, 2, [sym_comment, sym_documentation_comment])]),
     (112453, 10, [(ACTIONS 3, 1, [anon_sym_SLASH_SLASH]), (ACTIONS 5, 1,
       [anon_sym_SLASH_STAR]), (ACTIONS 7, 1, [anon_sym_SLASH_SLASH_SLASH]), (ACTIONS 9, 1,
       [sym__block_comment]), (ACTIONS 11, 1, [sym__documentation_block_comment]), (STATE 1962,
       1, [sym_cascade_section]), (ACTIONS 4646, 2, [anon_sym_DOT_DOT, anon_sym_QMARK_DOT_DOT]),
       (ACTIONS 2587, 3, [anon_sym_QMARK, anon_sym_DOT, anon_sym_QMARK_DOT]), (STATE 2140, 3,
       [sym_comment, sym_documentation_comment, aux_sym__expression_repeat1]), (ACTIONS 2585, 4,
       [anon_sym_LBRACK, anon_sym_LPAREN, anon_sym_LT, anon_sym_BANG])]),
     (112492, 14, [(ACTIONS 3, 1, [anon_sym_SLASH_SLASH]), (ACTIONS 5, 1,
       [anon_sym_SLASH_STAR]), (ACTIONS 7, 1, [anon_sym_SLASH_SLASH_SLASH]), (ACTIONS 9, 1,
       [sym__block_comment]), (ACTIONS 11, 1, [sym__documentation_block_comment]), (ACTIONS 2449,
       1, [anon_sym_DOT]), (ACTIONS 3508, 1, [anon_sym_QMARK]), (ACTIONS 3511, 1, [anon_sym_LT]),
       (ACTIONS 4649, 1, [anon_sym_LPAREN]), (STATE 1667, 1, [sym_parameter_type_list]), (STATE
       2219, 1, [sym_nullable_type]), (STATE 2262, 1, [sym_type_parameters]), (STATE 2141, 2,
       [sym_comment, sym_documentation_comment]), (ACTIONS 2460, 4, [anon_sym_Function,
       anon_sym_this, anon_sym_super, sym_identifier])]),
     (112539, 10, [(ACTIONS 3, 1, [anon_sym_SLASH_SLASH]), (ACTIONS 5, 1,
       [anon_sym_SLASH_STAR]), (ACTIONS 7, 1, [anon_sym_SLASH_SLASH_SLASH]), (ACTIONS 9, 1,
       [sym__block_comment]), (ACTIONS 11, 1, [sym__documentation_block_comment]), (ACTIONS 2587,
       1, [anon_sym_async]), (STATE 1962, 1, [sym_cascade_section]), (ACTIONS 4652, 2,
       [anon_sym_DOT_DOT, anon_sym_QMARK_DOT_DOT]), (STATE 2142, 3, [sym_comment,
       sym_documentation_comment, aux_sym__expression_repeat1]), (ACTIONS 2585, 6,
       [anon_sym_LBRACE, anon_sym_COMMA, anon_sym_SEMI, anon_sym_EQ_GT, anon_sym_async_STAR,
       anon_sym_sync_STAR])])]"

lemma small_run_763: "small_run 2139 112400 ts_small_parse_table_763 2143 112578"
  by (simp add: small_simps ts_small_parse_table_763_def)

definition ts_small_parse_table_764 :: "small_group list" where
  "ts_small_parse_table_764 = [
     (112578, 9, [(ACTIONS 3, 1, [anon_sym_SLASH_SLASH]), (ACTIONS 5, 1,
       [anon_sym_SLASH_STAR]), (ACTIONS 7, 1, [anon_sym_SLASH_SLASH_SLASH]), (ACTIONS 9, 1,
       [sym__block_comment]), (ACTIONS 11, 1, [sym__documentation_block_comment]), (ACTIONS 4657,
       1, [anon_sym_AMP_AMP]), (STATE 437, 1, [sym_logical_and_operator]), (STATE 2143, 3,
       [sym_comment, sym_documentation_comment, aux_sym__logical_and_pattern_repeat1]), (ACTIONS
       4655, 8, [anon_sym_RBRACE, anon_sym_COMMA, anon_sym_RBRACK, anon_sym_COLON,
       anon_sym_RPAREN, anon_sym_EQ_GT, anon_sym_when, anon_sym_PIPE_PIPE])]),
     (112615, 14, [(ACTIONS 3, 1, [anon_sym_SLASH_SLASH]), (ACTIONS 5, 1,
       [anon_sym_SLASH_STAR]), (ACTIONS 7, 1, [anon_sym_SLASH_SLASH_SLASH]), (ACTIONS 9, 1,
       [sym__block_comment]), (ACTIONS 11, 1, [sym__documentation_block_comment]), (ACTIONS 2380,
       1, [anon_sym_DOT]), (ACTIONS 3508, 1, [anon_sym_QMARK]), (ACTIONS 3511, 1, [anon_sym_LT]),
       (ACTIONS 4660, 1, [anon_sym_LPAREN]), (STATE 1667, 1, [sym_parameter_type_list]), (STATE
       2259, 1, [sym_nullable_type]), (STATE 2262, 1, [sym_type_parameters]), (STATE 2144, 2,
       [sym_comment, sym_documentation_comment]), (ACTIONS 2395, 4, [anon_sym_Function,
       anon_sym_this, anon_sym_super, sym_identifier])]),
     (112662, 9, [(ACTIONS 3, 1, [anon_sym_SLASH_SLASH]), (ACTIONS 5, 1,
       [anon_sym_SLASH_STAR]), (ACTIONS 7, 1, [anon_sym_SLASH_SLASH_SLASH]), (ACTIONS 9, 1,
       [sym__block_comment]), (ACTIONS 11, 1, [sym__documentation_block_comment]), (ACTIONS 2154,
       1, [anon_sym_QMARK]), (STATE 2204, 1, [sym_nullable_type]), (STATE 2145, 2, [sym_comment,
       sym_documentation_comment]), (ACTIONS 2541, 9, [anon_sym_LBRACE, anon_sym_COMMA,
       anon_sym_LPAREN, anon_sym_GT, anon_sym_DOT, anon_sym_SEMI, anon_sym_catch, anon_sym_with,
       anon_sym_implements])]),
     (112699, 17, [(ACTIONS 3, 1, [anon_sym_SLASH_SLASH]), (ACTIONS 5, 1,
       [anon_sym_SLASH_STAR]), (ACTIONS 7, 1, [anon_sym_SLASH_SLASH_SLASH]), (ACTIONS 9, 1,
       [sym__block_comment]), (ACTIONS 11, 1, [sym__documentation_block_comment]), (ACTIONS 3511,
       1, [anon_sym_LT]), (ACTIONS 4578, 1, [anon_sym_LBRACE]), (ACTIONS 4582, 1,
       [anon_sym_extends]), (ACTIONS 4584, 1, [anon_sym_with]), (ACTIONS 4586, 1,
       [anon_sym_implements]), (STATE 1784, 1, [sym_class_body]), (STATE 2023, 1,
       [sym__implements]), (STATE 2234, 1, [sym_type_parameters]), (STATE 2544, 1,
       [sym_superclass]), (STATE 3245, 1, [sym_interfaces]), (STATE 3248, 1, [sym_mixins]),
       (STATE 2146, 2, [sym_comment, sym_documentation_comment])])]"

lemma small_run_764: "small_run 2143 112578 ts_small_parse_table_764 2147 112752"
  by (simp add: small_simps ts_small_parse_table_764_def)

definition ts_small_parse_table_765 :: "small_group list" where
  "ts_small_parse_table_765 = [
     (112752, 10, [(ACTIONS 3, 1, [anon_sym_SLASH_SLASH]), (ACTIONS 5, 1,
       [anon_sym_SLASH_STAR]), (ACTIONS 7, 1, [anon_sym_SLASH_SLASH_SLASH]), (ACTIONS 9, 1,
       [sym__block_comment]), (ACTIONS 11, 1, [sym__documentation_block_comment]), (ACTIONS 4636,
       1, [anon_sym_AMP_AMP]), (STATE 437, 1, [sym_logical_and_operator]), (STATE 2136, 1,
       [aux_sym__logical_and_pattern_repeat1]), (STATE 2147, 2, [sym_comment,
       sym_documentation_comment]), (ACTIONS 4664, 8, [anon_sym_RBRACE, anon_sym_COMMA,
       anon_sym_RBRACK, anon_sym_COLON, anon_sym_RPAREN, anon_sym_EQ_GT, anon_sym_when,
       anon_sym_PIPE_PIPE])]),
     (112791, 16, [(ACTIONS 3, 1, [anon_sym_SLASH_SLASH]), (ACTIONS 5, 1,
       [anon_sym_SLASH_STAR]), (ACTIONS 7, 1, [anon_sym_SLASH_SLASH_SLASH]), (ACTIONS 9, 1,
       [sym__block_comment]), (ACTIONS 11, 1, [sym__documentation_block_comment]), (ACTIONS 4578,
       1, [anon_sym_LBRACE]), (ACTIONS 4582, 1, [anon_sym_extends]), (ACTIONS 4584, 1,
       [anon_sym_with]), (ACTIONS 4586, 1, [anon_sym_implements]), (ACTIONS 4666, 1,
       [anon_sym_EQ]), (STATE 1766, 1, [sym_class_body]), (STATE 2023, 1, [sym__implements]),
       (STATE 2572, 1, [sym_superclass]), (STATE 3187, 1, [sym_interfaces]), (STATE 3248, 1,
       [sym_mixins]), (STATE 2148, 2, [sym_comment, sym_documentation_comment])]),
     (112841, 8, [(ACTIONS 3, 1, [anon_sym_SLASH_SLASH]), (ACTIONS 5, 1,
       [anon_sym_SLASH_STAR]), (ACTIONS 7, 1, [anon_sym_SLASH_SLASH_SLASH]), (ACTIONS 9, 1,
       [sym__block_comment]), (ACTIONS 11, 1, [sym__documentation_block_comment]), (ACTIONS 4670,
       1, [anon_sym_LPAREN]), (STATE 2149, 2, [sym_comment, sym_documentation_comment]), (ACTIONS
       4668, 9, [anon_sym_final, sym_void_type, anon_sym_var, anon_sym_Function, anon_sym_get,
       anon_sym_set, sym_const_builtin, anon_sym_late, sym_identifier])]),
     (112875, 13, [(ACTIONS 3, 1, [anon_sym_SLASH_SLASH]), (ACTIONS 5, 1,
       [anon_sym_SLASH_STAR]), (ACTIONS 7, 1, [anon_sym_SLASH_SLASH_SLASH]), (ACTIONS 9, 1,
       [sym__block_comment]), (ACTIONS 11, 1, [sym__documentation_block_comment]), (ACTIONS 4674,
       1, [anon_sym_SQUOTE]), (ACTIONS 4676, 1, [anon_sym_SQUOTE_SQUOTE_SQUOTE]), (ACTIONS 4678,
       1, [anon_sym_DOLLAR]), (ACTIONS 4680, 1, [sym__unused_escape_sequence]), (STATE 2176, 1,
       [aux_sym__string_literal_single_quotes_multiple_repeat1]), (ACTIONS 4672, 2,
       [sym__template_chars_single, anon_sym_DQUOTE]), (STATE 2150, 2, [sym_comment,
       sym_documentation_comment]), (STATE 2449, 3, [sym_template_substitution,
       sym__sub_string_test, sym_escape_sequence])]),
     (112919, 12, [(ACTIONS 3, 1, [anon_sym_SLASH_SLASH]), (ACTIONS 5, 1,
       [anon_sym_SLASH_STAR]), (ACTIONS 7, 1, [anon_sym_SLASH_SLASH_SLASH]), (ACTIONS 9, 1,
       [sym__block_comment]), (ACTIONS 11, 1, [sym__documentation_block_comment]), (ACTIONS 4682,
       1, [anon_sym_DQUOTE]), (ACTIONS 4688, 1, [anon_sym_DQUOTE_DQUOTE_DQUOTE]), (ACTIONS 4690,
       1, [anon_sym_DOLLAR]), (ACTIONS 4693, 1, [sym__unused_escape_sequence]), (ACTIONS 4685, 2,
       [sym__template_chars_double, anon_sym_SQUOTE]), (STATE 2151, 3, [sym_comment,
       sym_documentation_comment, aux_sym__string_literal_double_quotes_multiple_repeat1]),
       (STATE 2495, 3, [sym_template_substitution, sym__sub_string_test, sym_escape_sequence])])]"

lemma small_run_765: "small_run 2147 112752 ts_small_parse_table_765 2152 112961"
  by (simp add: small_simps ts_small_parse_table_765_def)

definition ts_small_parse_table_766 :: "small_group list" where
  "ts_small_parse_table_766 = [
     (112961, 10, [(ACTIONS 3, 1, [anon_sym_SLASH_SLASH]), (ACTIONS 5, 1,
       [anon_sym_SLASH_STAR]), (ACTIONS 7, 1, [anon_sym_SLASH_SLASH_SLASH]), (ACTIONS 9, 1,
       [sym__block_comment]), (ACTIONS 11, 1, [sym__documentation_block_comment]), (ACTIONS 4698,
       1, [anon_sym_PIPE_PIPE]), (STATE 436, 1, [sym_logical_or_operator]), (STATE 2163, 1,
       [aux_sym__logical_or_pattern_repeat1]), (STATE 2152, 2, [sym_comment,
       sym_documentation_comment]), (ACTIONS 4696, 7, [anon_sym_RBRACE, anon_sym_COMMA,
       anon_sym_RBRACK, anon_sym_COLON, anon_sym_RPAREN, anon_sym_EQ_GT, anon_sym_when])]),
     (112999, 13, [(ACTIONS 3, 1, [anon_sym_SLASH_SLASH]), (ACTIONS 5, 1,
       [anon_sym_SLASH_STAR]), (ACTIONS 7, 1, [anon_sym_SLASH_SLASH_SLASH]), (ACTIONS 9, 1,
       [sym__block_comment]), (ACTIONS 11, 1, [sym__documentation_block_comment]), (ACTIONS 4700,
       1, [anon_sym_DQUOTE]), (ACTIONS 4704, 1, [anon_sym_DQUOTE_DQUOTE_DQUOTE]), (ACTIONS 4706,
       1, [anon_sym_DOLLAR]), (ACTIONS 4708, 1, [sym__unused_escape_sequence]), (STATE 2179, 1,
       [aux_sym__string_literal_double_quotes_multiple_repeat1]), (ACTIONS 4702, 2,
       [sym__template_chars_double, anon_sym_SQUOTE]), (STATE 2153, 2, [sym_comment,
       sym_documentation_comment]), (STATE 2495, 3, [sym_template_substitution,
       sym__sub_string_test, sym_escape_sequence])]),
     (113043, 13, [(ACTIONS 3, 1, [anon_sym_SLASH_SLASH]), (ACTIONS 5, 1,
       [anon_sym_SLASH_STAR]), (ACTIONS 7, 1, [anon_sym_SLASH_SLASH_SLASH]), (ACTIONS 9, 1,
       [sym__block_comment]), (ACTIONS 11, 1, [sym__documentation_block_comment]), (ACTIONS 4700,
       1, [anon_sym_DQUOTE]), (ACTIONS 4706, 1, [anon_sym_DOLLAR]), (ACTIONS 4708, 1,
       [sym__unused_escape_sequence]), (ACTIONS 4710, 1, [anon_sym_DQUOTE_DQUOTE_DQUOTE]), (STATE
       2172, 1, [aux_sym__string_literal_double_quotes_multiple_repeat1]), (ACTIONS 4702, 2,
       [sym__template_chars_double, anon_sym_SQUOTE]), (STATE 2154, 2, [sym_comment,
       sym_documentation_comment]), (STATE 2495, 3, [sym_template_substitution,
       sym__sub_string_test, sym_escape_sequence])]),
     (113087, 9, [(ACTIONS 3, 1, [anon_sym_SLASH_SLASH]), (ACTIONS 5, 1,
       [anon_sym_SLASH_STAR]), (ACTIONS 7, 1, [anon_sym_SLASH_SLASH_SLASH]), (ACTIONS 9, 1,
       [sym__block_comment]), (ACTIONS 11, 1, [sym__documentation_block_comment]), (ACTIONS 4714,
       1, [anon_sym_PIPE_PIPE]), (STATE 436, 1, [sym_logical_or_operator]), (STATE 2155, 3,
       [sym_comment, sym_documentation_comment, aux_sym__logical_or_pattern_repeat1]), (ACTIONS
       4712, 7, [anon_sym_RBRACE, anon_sym_COMMA, anon_sym_RBRACK, anon_sym_COLON,
       anon_sym_RPAREN, anon_sym_EQ_GT, anon_sym_when])]),
     (113123, 14, [(ACTIONS 3, 1, [anon_sym_SLASH_SLASH]), (ACTIONS 5, 1,
       [anon_sym_SLASH_STAR]), (ACTIONS 7, 1, [anon_sym_SLASH_SLASH_SLASH]), (ACTIONS 9, 1,
       [sym__block_comment]), (ACTIONS 11, 1, [sym__documentation_block_comment]), (ACTIONS 2154,
       1, [anon_sym_QMARK]), (ACTIONS 3161, 1, [anon_sym_LT]), (ACTIONS 4422, 1,
       [anon_sym_LPAREN]), (ACTIONS 4717, 1, [anon_sym_DOT]), (STATE 1718, 1,
       [sym_nullable_type]), (STATE 2431, 1, [sym_type_arguments]), (ACTIONS 2531, 2,
       [anon_sym_COMMA, anon_sym_RPAREN]), (ACTIONS 2539, 2, [anon_sym_Function,
       sym_identifier]), (STATE 2156, 2, [sym_comment, sym_documentation_comment])])]"

lemma small_run_766: "small_run 2152 112961 ts_small_parse_table_766 2157 113169"
  by (simp add: small_simps ts_small_parse_table_766_def)

definition ts_small_parse_table_767 :: "small_group list" where
  "ts_small_parse_table_767 = [
     (113169, 13, [(ACTIONS 3, 1, [anon_sym_SLASH_SLASH]), (ACTIONS 5, 1,
       [anon_sym_SLASH_STAR]), (ACTIONS 7, 1, [anon_sym_SLASH_SLASH_SLASH]), (ACTIONS 9, 1,
       [sym__block_comment]), (ACTIONS 11, 1, [sym__documentation_block_comment]), (ACTIONS 4674,
       1, [anon_sym_SQUOTE]), (ACTIONS 4678, 1, [anon_sym_DOLLAR]), (ACTIONS 4680, 1,
       [sym__unused_escape_sequence]), (ACTIONS 4719, 1, [anon_sym_SQUOTE_SQUOTE_SQUOTE]), (STATE
       2150, 1, [aux_sym__string_literal_single_quotes_multiple_repeat1]), (ACTIONS 4672, 2,
       [sym__template_chars_single, anon_sym_DQUOTE]), (STATE 2157, 2, [sym_comment,
       sym_documentation_comment]), (STATE 2449, 3, [sym_template_substitution,
       sym__sub_string_test, sym_escape_sequence])]),
     (113213, 8, [(ACTIONS 3, 1, [anon_sym_SLASH_SLASH]), (ACTIONS 5, 1,
       [anon_sym_SLASH_STAR]), (ACTIONS 7, 1, [anon_sym_SLASH_SLASH_SLASH]), (ACTIONS 9, 1,
       [sym__block_comment]), (ACTIONS 11, 1, [sym__documentation_block_comment]), (ACTIONS 4721,
       1, [anon_sym_EQ]), (STATE 2158, 2, [sym_comment, sym_documentation_comment]), (ACTIONS
       4576, 9, [anon_sym_RBRACE, anon_sym_COMMA, anon_sym_RBRACK, anon_sym_RPAREN,
       anon_sym_QMARK, anon_sym_BANG, anon_sym_as, anon_sym_AMP_AMP, anon_sym_PIPE_PIPE])]),
     (113247, 8, [(ACTIONS 3, 1, [anon_sym_SLASH_SLASH]), (ACTIONS 5, 1,
       [anon_sym_SLASH_STAR]), (ACTIONS 7, 1, [anon_sym_SLASH_SLASH_SLASH]), (ACTIONS 9, 1,
       [sym__block_comment]), (ACTIONS 11, 1, [sym__documentation_block_comment]), (ACTIONS 4725,
       1, [anon_sym_LPAREN]), (STATE 2159, 2, [sym_comment, sym_documentation_comment]), (ACTIONS
       4723, 9, [sym_void_type, anon_sym_factory, anon_sym_Function, anon_sym_get,
       anon_sym_operator, anon_sym_set, anon_sym_static, sym_const_builtin, sym_identifier])]),
     (113281, 13, [(ACTIONS 3, 1, [anon_sym_SLASH_SLASH]), (ACTIONS 5, 1,
       [anon_sym_SLASH_STAR]), (ACTIONS 7, 1, [anon_sym_SLASH_SLASH_SLASH]), (ACTIONS 9, 1,
       [sym__block_comment]), (ACTIONS 11, 1, [sym__documentation_block_comment]), (ACTIONS 4700,
       1, [anon_sym_DQUOTE]), (ACTIONS 4706, 1, [anon_sym_DOLLAR]), (ACTIONS 4708, 1,
       [sym__unused_escape_sequence]), (ACTIONS 4727, 1, [anon_sym_DQUOTE_DQUOTE_DQUOTE]), (STATE
       2180, 1, [aux_sym__string_literal_double_quotes_multiple_repeat1]), (ACTIONS 4702, 2,
       [sym__template_chars_double, anon_sym_SQUOTE]), (STATE 2160, 2, [sym_comment,
       sym_documentation_comment]), (STATE 2495, 3, [sym_template_substitution,
       sym__sub_string_test, sym_escape_sequence])]),
     (113325, 12, [(ACTIONS 3, 1, [anon_sym_SLASH_SLASH]), (ACTIONS 5, 1,
       [anon_sym_SLASH_STAR]), (ACTIONS 7, 1, [anon_sym_SLASH_SLASH_SLASH]), (ACTIONS 9, 1,
       [sym__block_comment]), (ACTIONS 11, 1, [sym__documentation_block_comment]), (ACTIONS 45,
       1, [anon_sym_Function]), (STATE 1704, 1, [sym__function_type_tail]), (STATE 2141, 1,
       [sym__function_builtin_identifier]), (STATE 2175, 1, [aux_sym__function_type_tails]),
       (STATE 2161, 2, [sym_comment, sym_documentation_comment]), (ACTIONS 2413, 3,
       [anon_sym_LPAREN, anon_sym_QMARK, anon_sym_DOT]), (ACTIONS 2415, 3, [anon_sym_this,
       anon_sym_super, sym_identifier])])]"

lemma small_run_767: "small_run 2157 113169 ts_small_parse_table_767 2162 113367"
  by (simp add: small_simps ts_small_parse_table_767_def)

definition ts_small_parse_table_768 :: "small_group list" where
  "ts_small_parse_table_768 = [
     (113367, 13, [(ACTIONS 3, 1, [anon_sym_SLASH_SLASH]), (ACTIONS 5, 1,
       [anon_sym_SLASH_STAR]), (ACTIONS 7, 1, [anon_sym_SLASH_SLASH_SLASH]), (ACTIONS 9, 1,
       [sym__block_comment]), (ACTIONS 11, 1, [sym__documentation_block_comment]), (ACTIONS 4674,
       1, [anon_sym_SQUOTE]), (ACTIONS 4678, 1, [anon_sym_DOLLAR]), (ACTIONS 4680, 1,
       [sym__unused_escape_sequence]), (ACTIONS 4729, 1, [anon_sym_SQUOTE_SQUOTE_SQUOTE]), (STATE
       2173, 1, [aux_sym__string_literal_single_quotes_multiple_repeat1]), (ACTIONS 4672, 2,
       [sym__template_chars_single, anon_sym_DQUOTE]), (STATE 2162, 2, [sym_comment,
       sym_documentation_comment]), (STATE 2449, 3, [sym_template_substitution,
       sym__sub_string_test, sym_escape_sequence])]),
     (113411, 10, [(ACTIONS 3, 1, [anon_sym_SLASH_SLASH]), (ACTIONS 5, 1,
       [anon_sym_SLASH_STAR]), (ACTIONS 7, 1, [anon_sym_SLASH_SLASH_SLASH]), (ACTIONS 9, 1,
       [sym__block_comment]), (ACTIONS 11, 1, [sym__documentation_block_comment]), (ACTIONS 4698,
       1, [anon_sym_PIPE_PIPE]), (STATE 436, 1, [sym_logical_or_operator]), (STATE 2155, 1,
       [aux_sym__logical_or_pattern_repeat1]), (STATE 2163, 2, [sym_comment,
       sym_documentation_comment]), (ACTIONS 4731, 7, [anon_sym_RBRACE, anon_sym_COMMA,
       anon_sym_RBRACK, anon_sym_COLON, anon_sym_RPAREN, anon_sym_EQ_GT, anon_sym_when])]),
     (113449, 14, [(ACTIONS 3, 1, [anon_sym_SLASH_SLASH]), (ACTIONS 5, 1,
       [anon_sym_SLASH_STAR]), (ACTIONS 7, 1, [anon_sym_SLASH_SLASH_SLASH]), (ACTIONS 9, 1,
       [sym__block_comment]), (ACTIONS 11, 1, [sym__documentation_block_comment]), (ACTIONS 3692,
       1, [anon_sym_DOT]), (ACTIONS 4736, 1, [anon_sym_QMARK]), (ACTIONS 4739, 1,
       [anon_sym_extends]), (STATE 1612, 1, [sym__type_dot_identifier]), (STATE 2647, 1,
       [sym_nullable_type]), (STATE 3131, 1, [sym_type_bound]), (ACTIONS 2015, 2, [anon_sym_LT,
       anon_sym_Function]), (ACTIONS 4733, 2, [anon_sym_COMMA, anon_sym_GT]), (STATE 2164, 2,
       [sym_comment, sym_documentation_comment])]),
     (113495, 13, [(ACTIONS 3, 1, [anon_sym_SLASH_SLASH]), (ACTIONS 5, 1,
       [anon_sym_SLASH_STAR]), (ACTIONS 7, 1, [anon_sym_SLASH_SLASH_SLASH]), (ACTIONS 9, 1,
       [sym__block_comment]), (ACTIONS 11, 1, [sym__documentation_block_comment]), (ACTIONS 4700,
       1, [anon_sym_DQUOTE]), (ACTIONS 4706, 1, [anon_sym_DOLLAR]), (ACTIONS 4708, 1,
       [sym__unused_escape_sequence]), (ACTIONS 4741, 1, [anon_sym_DQUOTE_DQUOTE_DQUOTE]), (STATE
       2151, 1, [aux_sym__string_literal_double_quotes_multiple_repeat1]), (ACTIONS 4702, 2,
       [sym__template_chars_double, anon_sym_SQUOTE]), (STATE 2165, 2, [sym_comment,
       sym_documentation_comment]), (STATE 2495, 3, [sym_template_substitution,
       sym__sub_string_test, sym_escape_sequence])])]"

lemma small_run_768: "small_run 2162 113367 ts_small_parse_table_768 2166 113539"
  by (simp add: small_simps ts_small_parse_table_768_def)

definition ts_small_parse_table_769 :: "small_group list" where
  "ts_small_parse_table_769 = [
     (113539, 13, [(ACTIONS 3, 1, [anon_sym_SLASH_SLASH]), (ACTIONS 5, 1,
       [anon_sym_SLASH_STAR]), (ACTIONS 7, 1, [anon_sym_SLASH_SLASH_SLASH]), (ACTIONS 9, 1,
       [sym__block_comment]), (ACTIONS 11, 1, [sym__documentation_block_comment]), (ACTIONS 4700,
       1, [anon_sym_DQUOTE]), (ACTIONS 4706, 1, [anon_sym_DOLLAR]), (ACTIONS 4708, 1,
       [sym__unused_escape_sequence]), (ACTIONS 4743, 1, [anon_sym_DQUOTE_DQUOTE_DQUOTE]), (STATE
       2165, 1, [aux_sym__string_literal_double_quotes_multiple_repeat1]), (ACTIONS 4702, 2,
       [sym__template_chars_double, anon_sym_SQUOTE]), (STATE 2166, 2, [sym_comment,
       sym_documentation_comment]), (STATE 2495, 3, [sym_template_substitution,
       sym__sub_string_test, sym_escape_sequence])]),
     (113583, 10, [(ACTIONS 3, 1, [anon_sym_SLASH_SLASH]), (ACTIONS 5, 1,
       [anon_sym_SLASH_STAR]), (ACTIONS 7, 1, [anon_sym_SLASH_SLASH_SLASH]), (ACTIONS 9, 1,
       [sym__block_comment]), (ACTIONS 11, 1, [sym__documentation_block_comment]), (ACTIONS 4324,
       1, [anon_sym_DOT]), (STATE 1612, 1, [sym__type_dot_identifier]), (STATE 2167, 2,
       [sym_comment, sym_documentation_comment]), (ACTIONS 1320, 4, [anon_sym_Function,
       anon_sym_this, anon_sym_super, sym_identifier]), (ACTIONS 2015, 4, [anon_sym_LPAREN,
       anon_sym_QMARK, anon_sym_LT, anon_sym_SEMI])]),
     (113621, 16, [(ACTIONS 3, 1, [anon_sym_SLASH_SLASH]), (ACTIONS 5, 1,
       [anon_sym_SLASH_STAR]), (ACTIONS 7, 1, [anon_sym_SLASH_SLASH_SLASH]), (ACTIONS 9, 1,
       [sym__block_comment]), (ACTIONS 11, 1, [sym__documentation_block_comment]), (ACTIONS 890,
       1, [anon_sym_default]), (ACTIONS 892, 1, [anon_sym_case]), (ACTIONS 4745, 1,
       [sym_identifier]), (ACTIONS 4747, 1, [anon_sym_RBRACE]), (STATE 409, 1,
       [sym_case_builtin]), (STATE 2193, 1, [aux_sym_switch_block_repeat1]), (STATE 2476, 1,
       [aux_sym_switch_statement_case_repeat1]), (STATE 2665, 1, [sym_switch_statement_case]),
       (STATE 2691, 1, [sym_label]), (STATE 3463, 1, [sym_switch_statement_default]), (STATE
       2168, 2, [sym_comment, sym_documentation_comment])]),
     (113671, 8, [(ACTIONS 3, 1, [anon_sym_SLASH_SLASH]), (ACTIONS 5, 1,
       [anon_sym_SLASH_STAR]), (ACTIONS 7, 1, [anon_sym_SLASH_SLASH_SLASH]), (ACTIONS 9, 1,
       [sym__block_comment]), (ACTIONS 11, 1, [sym__documentation_block_comment]), (STATE 2169,
       2, [sym_comment, sym_documentation_comment]), (ACTIONS 2962, 4, [anon_sym_QMARK,
       sym_void_type, anon_sym_Function, sym_identifier]), (ACTIONS 2960, 6, [anon_sym_LBRACK,
       anon_sym_LPAREN, anon_sym_LT, anon_sym_BANG, anon_sym_DOT, anon_sym_QMARK_DOT])]),
     (113705, 13, [(ACTIONS 3, 1, [anon_sym_SLASH_SLASH]), (ACTIONS 5, 1,
       [anon_sym_SLASH_STAR]), (ACTIONS 7, 1, [anon_sym_SLASH_SLASH_SLASH]), (ACTIONS 9, 1,
       [sym__block_comment]), (ACTIONS 11, 1, [sym__documentation_block_comment]), (ACTIONS 4674,
       1, [anon_sym_SQUOTE]), (ACTIONS 4678, 1, [anon_sym_DOLLAR]), (ACTIONS 4680, 1,
       [sym__unused_escape_sequence]), (ACTIONS 4749, 1, [anon_sym_SQUOTE_SQUOTE_SQUOTE]), (STATE
       2182, 1, [aux_sym__string_literal_single_quotes_multiple_repeat1]), (ACTIONS 4672, 2,
       [sym__template_chars_single, anon_sym_DQUOTE]), (STATE 2170, 2, [sym_comment,
       sym_documentation_comment]), (STATE 2449, 3, [sym_template_substitution,
       sym__sub_string_test, sym_escape_sequence])])]"

lemma small_run_769: "small_run 2166 113539 ts_small_parse_table_769 2171 113749"
  by (simp add: small_simps ts_small_parse_table_769_def)

definition ts_small_parse_table_770 :: "small_group list" where
  "ts_small_parse_table_770 = [
     (113749, 16, [(ACTIONS 3, 1, [anon_sym_SLASH_SLASH]), (ACTIONS 5, 1,
       [anon_sym_SLASH_STAR]), (ACTIONS 7, 1, [anon_sym_SLASH_SLASH_SLASH]), (ACTIONS 9, 1,
       [sym__block_comment]), (ACTIONS 11, 1, [sym__documentation_block_comment]), (ACTIONS 4578,
       1, [anon_sym_LBRACE]), (ACTIONS 4582, 1, [anon_sym_extends]), (ACTIONS 4584, 1,
       [anon_sym_with]), (ACTIONS 4586, 1, [anon_sym_implements]), (ACTIONS 4666, 1,
       [anon_sym_EQ]), (STATE 1738, 1, [sym_class_body]), (STATE 2023, 1, [sym__implements]),
       (STATE 2586, 1, [sym_superclass]), (STATE 3062, 1, [sym_interfaces]), (STATE 3248, 1,
       [sym_mixins]), (STATE 2171, 2, [sym_comment, sym_documentation_comment])]),
     (113799, 13, [(ACTIONS 3, 1, [anon_sym_SLASH_SLASH]), (ACTIONS 5, 1,
       [anon_sym_SLASH_STAR]), (ACTIONS 7, 1, [anon_sym_SLASH_SLASH_SLASH]), (ACTIONS 9, 1,
       [sym__block_comment]), (ACTIONS 11, 1, [sym__documentation_block_comment]), (ACTIONS 4700,
       1, [anon_sym_DQUOTE]), (ACTIONS 4706, 1, [anon_sym_DOLLAR]), (ACTIONS 4708, 1,
       [sym__unused_escape_sequence]), (ACTIONS 4751, 1, [anon_sym_DQUOTE_DQUOTE_DQUOTE]), (STATE
       2151, 1, [aux_sym__string_literal_double_quotes_multiple_repeat1]), (ACTIONS 4702, 2,
       [sym__template_chars_double, anon_sym_SQUOTE]), (STATE 2172, 2, [sym_comment,
       sym_documentation_comment]), (STATE 2495, 3, [sym_template_substitution,
       sym__sub_string_test, sym_escape_sequence])]),
     (113843, 13, [(ACTIONS 3, 1, [anon_sym_SLASH_SLASH]), (ACTIONS 5, 1,
       [anon_sym_SLASH_STAR]), (ACTIONS 7, 1, [anon_sym_SLASH_SLASH_SLASH]), (ACTIONS 9, 1,
       [sym__block_comment]), (ACTIONS 11, 1, [sym__documentation_block_comment]), (ACTIONS 4674,
       1, [anon_sym_SQUOTE]), (ACTIONS 4678, 1, [anon_sym_DOLLAR]), (ACTIONS 4680, 1,
       [sym__unused_escape_sequence]), (ACTIONS 4753, 1, [anon_sym_SQUOTE_SQUOTE_SQUOTE]), (STATE
       2176, 1, [aux_sym__string_literal_single_quotes_multiple_repeat1]), (ACTIONS 4672, 2,
       [sym__template_chars_single, anon_sym_DQUOTE]), (STATE 2173, 2, [sym_comment,
       sym_documentation_comment]), (STATE 2449, 3, [sym_template_substitution,
       sym__sub_string_test, sym_escape_sequence])]),
     (113887, 12, [(ACTIONS 3, 1, [anon_sym_SLASH_SLASH]), (ACTIONS 5, 1,
       [anon_sym_SLASH_STAR]), (ACTIONS 7, 1, [anon_sym_SLASH_SLASH_SLASH]), (ACTIONS 9, 1,
       [sym__block_comment]), (ACTIONS 11, 1, [sym__documentation_block_comment]), (ACTIONS 45,
       1, [anon_sym_Function]), (STATE 1704, 1, [sym__function_type_tail]), (STATE 2141, 1,
       [sym__function_builtin_identifier]), (STATE 2175, 1, [aux_sym__function_type_tails]),
       (STATE 2174, 2, [sym_comment, sym_documentation_comment]), (ACTIONS 2435, 3,
       [anon_sym_LPAREN, anon_sym_QMARK, anon_sym_DOT]), (ACTIONS 2437, 3, [anon_sym_this,
       anon_sym_super, sym_identifier])])]"

lemma small_run_770: "small_run 2171 113749 ts_small_parse_table_770 2175 113929"
  by (simp add: small_simps ts_small_parse_table_770_def)

definition ts_small_parse_table_771 :: "small_group list" where
  "ts_small_parse_table_771 = [
     (113929, 11, [(ACTIONS 3, 1, [anon_sym_SLASH_SLASH]), (ACTIONS 5, 1,
       [anon_sym_SLASH_STAR]), (ACTIONS 7, 1, [anon_sym_SLASH_SLASH_SLASH]), (ACTIONS 9, 1,
       [sym__block_comment]), (ACTIONS 11, 1, [sym__documentation_block_comment]), (ACTIONS 3630,
       1, [anon_sym_Function]), (STATE 1704, 1, [sym__function_type_tail]), (STATE 2141, 1,
       [sym__function_builtin_identifier]), (ACTIONS 2442, 3, [anon_sym_LPAREN, anon_sym_QMARK,
       anon_sym_DOT]), (ACTIONS 2444, 3, [anon_sym_this, anon_sym_super, sym_identifier]), (STATE
       2175, 3, [aux_sym__function_type_tails, sym_comment, sym_documentation_comment])]),
     (113969, 12, [(ACTIONS 3, 1, [anon_sym_SLASH_SLASH]), (ACTIONS 5, 1,
       [anon_sym_SLASH_STAR]), (ACTIONS 7, 1, [anon_sym_SLASH_SLASH_SLASH]), (ACTIONS 9, 1,
       [sym__block_comment]), (ACTIONS 11, 1, [sym__documentation_block_comment]), (ACTIONS 4758,
       1, [anon_sym_SQUOTE]), (ACTIONS 4761, 1, [anon_sym_SQUOTE_SQUOTE_SQUOTE]), (ACTIONS 4763,
       1, [anon_sym_DOLLAR]), (ACTIONS 4766, 1, [sym__unused_escape_sequence]), (ACTIONS 4755, 2,
       [sym__template_chars_single, anon_sym_DQUOTE]), (STATE 2176, 3, [sym_comment,
       sym_documentation_comment, aux_sym__string_literal_single_quotes_multiple_repeat1]),
       (STATE 2449, 3, [sym_template_substitution, sym__sub_string_test, sym_escape_sequence])]),
     (114011, 13, [(ACTIONS 3, 1, [anon_sym_SLASH_SLASH]), (ACTIONS 5, 1,
       [anon_sym_SLASH_STAR]), (ACTIONS 7, 1, [anon_sym_SLASH_SLASH_SLASH]), (ACTIONS 9, 1,
       [sym__block_comment]), (ACTIONS 11, 1, [sym__documentation_block_comment]), (ACTIONS 4700,
       1, [anon_sym_DQUOTE]), (ACTIONS 4706, 1, [anon_sym_DOLLAR]), (ACTIONS 4708, 1,
       [sym__unused_escape_sequence]), (ACTIONS 4769, 1, [anon_sym_DQUOTE_DQUOTE_DQUOTE]), (STATE
       2151, 1, [aux_sym__string_literal_double_quotes_multiple_repeat1]), (ACTIONS 4702, 2,
       [sym__template_chars_double, anon_sym_SQUOTE]), (STATE 2177, 2, [sym_comment,
       sym_documentation_comment]), (STATE 2495, 3, [sym_template_substitution,
       sym__sub_string_test, sym_escape_sequence])]),
     (114055, 13, [(ACTIONS 3, 1, [anon_sym_SLASH_SLASH]), (ACTIONS 5, 1,
       [anon_sym_SLASH_STAR]), (ACTIONS 7, 1, [anon_sym_SLASH_SLASH_SLASH]), (ACTIONS 9, 1,
       [sym__block_comment]), (ACTIONS 11, 1, [sym__documentation_block_comment]), (ACTIONS 4700,
       1, [anon_sym_DQUOTE]), (ACTIONS 4706, 1, [anon_sym_DOLLAR]), (ACTIONS 4708, 1,
       [sym__unused_escape_sequence]), (ACTIONS 4771, 1, [anon_sym_DQUOTE_DQUOTE_DQUOTE]), (STATE
       2177, 1, [aux_sym__string_literal_double_quotes_multiple_repeat1]), (ACTIONS 4702, 2,
       [sym__template_chars_double, anon_sym_SQUOTE]), (STATE 2178, 2, [sym_comment,
       sym_documentation_comment]), (STATE 2495, 3, [sym_template_substitution,
       sym__sub_string_test, sym_escape_sequence])])]"

lemma small_run_771: "small_run 2175 113929 ts_small_parse_table_771 2179 114099"
  by (simp add: small_simps ts_small_parse_table_771_def)

definition ts_small_parse_table_772 :: "small_group list" where
  "ts_small_parse_table_772 = [
     (114099, 13, [(ACTIONS 3, 1, [anon_sym_SLASH_SLASH]), (ACTIONS 5, 1,
       [anon_sym_SLASH_STAR]), (ACTIONS 7, 1, [anon_sym_SLASH_SLASH_SLASH]), (ACTIONS 9, 1,
       [sym__block_comment]), (ACTIONS 11, 1, [sym__documentation_block_comment]), (ACTIONS 4700,
       1, [anon_sym_DQUOTE]), (ACTIONS 4706, 1, [anon_sym_DOLLAR]), (ACTIONS 4708, 1,
       [sym__unused_escape_sequence]), (ACTIONS 4773, 1, [anon_sym_DQUOTE_DQUOTE_DQUOTE]), (STATE
       2151, 1, [aux_sym__string_literal_double_quotes_multiple_repeat1]), (ACTIONS 4702, 2,
       [sym__template_chars_double, anon_sym_SQUOTE]), (STATE 2179, 2, [sym_comment,
       sym_documentation_comment]), (STATE 2495, 3, [sym_template_substitution,
       sym__sub_string_test, sym_escape_sequence])]),
     (114143, 13, [(ACTIONS 3, 1, [anon_sym_SLASH_SLASH]), (ACTIONS 5, 1,
       [anon_sym_SLASH_STAR]), (ACTIONS 7, 1, [anon_sym_SLASH_SLASH_SLASH]), (ACTIONS 9, 1,
       [sym__block_comment]), (ACTIONS 11, 1, [sym__documentation_block_comment]), (ACTIONS 4700,
       1, [anon_sym_DQUOTE]), (ACTIONS 4706, 1, [anon_sym_DOLLAR]), (ACTIONS 4708, 1,
       [sym__unused_escape_sequence]), (ACTIONS 4775, 1, [anon_sym_DQUOTE_DQUOTE_DQUOTE]), (STATE
       2151, 1, [aux_sym__string_literal_double_quotes_multiple_repeat1]), (ACTIONS 4702, 2,
       [sym__template_chars_double, anon_sym_SQUOTE]), (STATE 2180, 2, [sym_comment,
       sym_documentation_comment]), (STATE 2495, 3, [sym_template_substitution,
       sym__sub_string_test, sym_escape_sequence])]),
     (114187, 13, [(ACTIONS 3, 1, [anon_sym_SLASH_SLASH]), (ACTIONS 5, 1,
       [anon_sym_SLASH_STAR]), (ACTIONS 7, 1, [anon_sym_SLASH_SLASH_SLASH]), (ACTIONS 9, 1,
       [sym__block_comment]), (ACTIONS 11, 1, [sym__documentation_block_comment]), (ACTIONS 4674,
       1, [anon_sym_SQUOTE]), (ACTIONS 4678, 1, [anon_sym_DOLLAR]), (ACTIONS 4680, 1,
       [sym__unused_escape_sequence]), (ACTIONS 4777, 1, [anon_sym_SQUOTE_SQUOTE_SQUOTE]), (STATE
       2185, 1, [aux_sym__string_literal_single_quotes_multiple_repeat1]), (ACTIONS 4672, 2,
       [sym__template_chars_single, anon_sym_DQUOTE]), (STATE 2181, 2, [sym_comment,
       sym_documentation_comment]), (STATE 2449, 3, [sym_template_substitution,
       sym__sub_string_test, sym_escape_sequence])]),
     (114231, 13, [(ACTIONS 3, 1, [anon_sym_SLASH_SLASH]), (ACTIONS 5, 1,
       [anon_sym_SLASH_STAR]), (ACTIONS 7, 1, [anon_sym_SLASH_SLASH_SLASH]), (ACTIONS 9, 1,
       [sym__block_comment]), (ACTIONS 11, 1, [sym__documentation_block_comment]), (ACTIONS 4674,
       1, [anon_sym_SQUOTE]), (ACTIONS 4678, 1, [anon_sym_DOLLAR]), (ACTIONS 4680, 1,
       [sym__unused_escape_sequence]), (ACTIONS 4779, 1, [anon_sym_SQUOTE_SQUOTE_SQUOTE]), (STATE
       2176, 1, [aux_sym__string_literal_single_quotes_multiple_repeat1]), (ACTIONS 4672, 2,
       [sym__template_chars_single, anon_sym_DQUOTE]), (STATE 2182, 2, [sym_comment,
       sym_documentation_comment]), (STATE 2449, 3, [sym_template_substitution,
       sym__sub_string_test, sym_escape_sequence])])]"

lemma small_run_772: "small_run 2179 114099 ts_small_parse_table_772 2183 114275"
  by (simp add: small_simps ts_small_parse_table_772_def)

definition ts_small_parse_table_773 :: "small_group list" where
  "ts_small_parse_table_773 = [
     (114275, 13, [(ACTIONS 3, 1, [anon_sym_SLASH_SLASH]), (ACTIONS 5, 1,
       [anon_sym_SLASH_STAR]), (ACTIONS 7, 1, [anon_sym_SLASH_SLASH_SLASH]), (ACTIONS 9, 1,
       [sym__block_comment]), (ACTIONS 11, 1, [sym__documentation_block_comment]), (ACTIONS 4674,
       1, [anon_sym_SQUOTE]), (ACTIONS 4678, 1, [anon_sym_DOLLAR]), (ACTIONS 4680, 1,
       [sym__unused_escape_sequence]), (ACTIONS 4781, 1, [anon_sym_SQUOTE_SQUOTE_SQUOTE]), (STATE
       2184, 1, [aux_sym__string_literal_single_quotes_multiple_repeat1]), (ACTIONS 4672, 2,
       [sym__template_chars_single, anon_sym_DQUOTE]), (STATE 2183, 2, [sym_comment,
       sym_documentation_comment]), (STATE 2449, 3, [sym_template_substitution,
       sym__sub_string_test, sym_escape_sequence])]),
     (114319, 13, [(ACTIONS 3, 1, [anon_sym_SLASH_SLASH]), (ACTIONS 5, 1,
       [anon_sym_SLASH_STAR]), (ACTIONS 7, 1, [anon_sym_SLASH_SLASH_SLASH]), (ACTIONS 9, 1,
       [sym__block_comment]), (ACTIONS 11, 1, [sym__documentation_block_comment]), (ACTIONS 4674,
       1, [anon_sym_SQUOTE]), (ACTIONS 4678, 1, [anon_sym_DOLLAR]), (ACTIONS 4680, 1,
       [sym__unused_escape_sequence]), (ACTIONS 4783, 1, [anon_sym_SQUOTE_SQUOTE_SQUOTE]), (STATE
       2176, 1, [aux_sym__string_literal_single_quotes_multiple_repeat1]), (ACTIONS 4672, 2,
       [sym__template_chars_single, anon_sym_DQUOTE]), (STATE 2184, 2, [sym_comment,
       sym_documentation_comment]), (STATE 2449, 3, [sym_template_substitution,
       sym__sub_string_test, sym_escape_sequence])]),
     (114363, 13, [(ACTIONS 3, 1, [anon_sym_SLASH_SLASH]), (ACTIONS 5, 1,
       [anon_sym_SLASH_STAR]), (ACTIONS 7, 1, [anon_sym_SLASH_SLASH_SLASH]), (ACTIONS 9, 1,
       [sym__block_comment]), (ACTIONS 11, 1, [sym__documentation_block_comment]), (ACTIONS 4674,
       1, [anon_sym_SQUOTE]), (ACTIONS 4678, 1, [anon_sym_DOLLAR]), (ACTIONS 4680, 1,
       [sym__unused_escape_sequence]), (ACTIONS 4785, 1, [anon_sym_SQUOTE_SQUOTE_SQUOTE]), (STATE
       2176, 1, [aux_sym__string_literal_single_quotes_multiple_repeat1]), (ACTIONS 4672, 2,
       [sym__template_chars_single, anon_sym_DQUOTE]), (STATE 2185, 2, [sym_comment,
       sym_documentation_comment]), (STATE 2449, 3, [sym_template_substitution,
       sym__sub_string_test, sym_escape_sequence])]),
     (114407, 7, [(ACTIONS 3, 1, [anon_sym_SLASH_SLASH]), (ACTIONS 5, 1,
       [anon_sym_SLASH_STAR]), (ACTIONS 7, 1, [anon_sym_SLASH_SLASH_SLASH]), (ACTIONS 9, 1,
       [sym__block_comment]), (ACTIONS 11, 1, [sym__documentation_block_comment]), (STATE 2186,
       2, [sym_comment, sym_documentation_comment]), (ACTIONS 4655, 9, [anon_sym_RBRACE,
       anon_sym_COMMA, anon_sym_RBRACK, anon_sym_COLON, anon_sym_RPAREN, anon_sym_EQ_GT,
       anon_sym_when, anon_sym_AMP_AMP, anon_sym_PIPE_PIPE])]),
     (114438, 12, [(ACTIONS 3, 1, [anon_sym_SLASH_SLASH]), (ACTIONS 5, 1,
       [anon_sym_SLASH_STAR]), (ACTIONS 7, 1, [anon_sym_SLASH_SLASH_SLASH]), (ACTIONS 9, 1,
       [sym__block_comment]), (ACTIONS 11, 1, [sym__documentation_block_comment]), (ACTIONS 4789,
       1, [anon_sym_COLON]), (ACTIONS 4791, 1, [anon_sym_SEMI]), (ACTIONS 4793, 1,
       [anon_sym_async]), (STATE 2521, 1, [sym_initializers]), (STATE 3314, 1,
       [sym_redirection]), (STATE 2187, 2, [sym_comment, sym_documentation_comment]), (ACTIONS
       4787, 4, [anon_sym_LBRACE, anon_sym_EQ_GT, anon_sym_async_STAR, anon_sym_sync_STAR])])]"

lemma small_run_773: "small_run 2183 114275 ts_small_parse_table_773 2188 114479"
  by (simp add: small_simps ts_small_parse_table_773_def)

definition ts_small_parse_table_774 :: "small_group list" where
  "ts_small_parse_table_774 = [
     (114479, 14, [(ACTIONS 3, 1, [anon_sym_SLASH_SLASH]), (ACTIONS 5, 1,
       [anon_sym_SLASH_STAR]), (ACTIONS 7, 1, [anon_sym_SLASH_SLASH_SLASH]), (ACTIONS 9, 1,
       [sym__block_comment]), (ACTIONS 11, 1, [sym__documentation_block_comment]), (ACTIONS 149,
       1, [sym_assert_builtin]), (ACTIONS 159, 1, [anon_sym_this]), (ACTIONS 161, 1,
       [anon_sym_super]), (ACTIONS 4795, 1, [sym_identifier]), (STATE 2430, 1,
       [sym_initializer_list_entry]), (STATE 2941, 1, [sym_super]), (STATE 3319, 1, [sym_this]),
       (STATE 2188, 2, [sym_comment, sym_documentation_comment]), (STATE 2354, 2, [sym_assertion,
       sym_field_initializer])]),
     (114524, 13, [(ACTIONS 3, 1, [anon_sym_SLASH_SLASH]), (ACTIONS 5, 1,
       [anon_sym_SLASH_STAR]), (ACTIONS 7, 1, [anon_sym_SLASH_SLASH_SLASH]), (ACTIONS 9, 1,
       [sym__block_comment]), (ACTIONS 11, 1, [sym__documentation_block_comment]), (ACTIONS 3692,
       1, [anon_sym_DOT]), (ACTIONS 4797, 1, [anon_sym_COMMA]), (ACTIONS 4799, 1,
       [anon_sym_SEMI]), (STATE 1612, 1, [sym__type_dot_identifier]), (STATE 2714, 1,
       [aux_sym_inferred_parameters_repeat1]), (ACTIONS 1320, 2, [anon_sym_Function,
       sym_identifier]), (ACTIONS 2015, 2, [anon_sym_QMARK, anon_sym_LT]), (STATE 2189, 2,
       [sym_comment, sym_documentation_comment])]),
     (114567, 8, [(ACTIONS 3, 1, [anon_sym_SLASH_SLASH]), (ACTIONS 5, 1,
       [anon_sym_SLASH_STAR]), (ACTIONS 7, 1, [anon_sym_SLASH_SLASH_SLASH]), (ACTIONS 9, 1,
       [sym__block_comment]), (ACTIONS 11, 1, [sym__documentation_block_comment]), (STATE 2190,
       2, [sym_comment, sym_documentation_comment]), (ACTIONS 4803, 4, [anon_sym_LBRACE,
       anon_sym_LBRACK, anon_sym_LPAREN, anon_sym_LT]), (ACTIONS 4801, 5, [sym_void_type,
       anon_sym_Function, anon_sym_this, anon_sym_super, sym_identifier])]),
     (114600, 12, [(ACTIONS 3, 1, [anon_sym_SLASH_SLASH]), (ACTIONS 5, 1,
       [anon_sym_SLASH_STAR]), (ACTIONS 7, 1, [anon_sym_SLASH_SLASH_SLASH]), (ACTIONS 9, 1,
       [sym__block_comment]), (ACTIONS 11, 1, [sym__documentation_block_comment]), (ACTIONS 4805,
       1, [anon_sym_DQUOTE]), (ACTIONS 4809, 1, [anon_sym_DOLLAR]), (ACTIONS 4811, 1,
       [sym__unused_escape_sequence]), (STATE 2206, 1,
       [aux_sym__string_literal_double_quotes_repeat1]), (ACTIONS 4807, 2,
       [sym__template_chars_double_single, anon_sym_SQUOTE]), (STATE 2191, 2, [sym_comment,
       sym_documentation_comment]), (STATE 2583, 3, [sym_template_substitution,
       sym__sub_string_test, sym_escape_sequence])]),
     (114641, 12, [(ACTIONS 3, 1, [anon_sym_SLASH_SLASH]), (ACTIONS 5, 1,
       [anon_sym_SLASH_STAR]), (ACTIONS 7, 1, [anon_sym_SLASH_SLASH_SLASH]), (ACTIONS 9, 1,
       [sym__block_comment]), (ACTIONS 11, 1, [sym__documentation_block_comment]), (ACTIONS 4815,
       1, [anon_sym_SQUOTE]), (ACTIONS 4817, 1, [anon_sym_DOLLAR]), (ACTIONS 4819, 1,
       [sym__unused_escape_sequence]), (STATE 2203, 1,
       [aux_sym__string_literal_single_quotes_repeat1]), (ACTIONS 4813, 2,
       [sym__template_chars_single_single, anon_sym_DQUOTE]), (STATE 2192, 2, [sym_comment,
       sym_documentation_comment]), (STATE 2584, 3, [sym_template_substitution,
       sym__sub_string_test, sym_escape_sequence])])]"

lemma small_run_774: "small_run 2188 114479 ts_small_parse_table_774 2193 114682"
  by (simp add: small_simps ts_small_parse_table_774_def)

definition ts_small_parse_table_775 :: "small_group list" where
  "ts_small_parse_table_775 = [
     (114682, 14, [(ACTIONS 3, 1, [anon_sym_SLASH_SLASH]), (ACTIONS 5, 1,
       [anon_sym_SLASH_STAR]), (ACTIONS 7, 1, [anon_sym_SLASH_SLASH_SLASH]), (ACTIONS 9, 1,
       [sym__block_comment]), (ACTIONS 11, 1, [sym__documentation_block_comment]), (ACTIONS 4821,
       1, [sym_identifier]), (ACTIONS 4824, 1, [anon_sym_RBRACE]), (ACTIONS 4826, 1,
       [anon_sym_default]), (ACTIONS 4828, 1, [anon_sym_case]), (STATE 409, 1,
       [sym_case_builtin]), (STATE 2559, 1, [aux_sym_switch_statement_case_repeat1]), (STATE
       2665, 1, [sym_switch_statement_case]), (STATE 2691, 1, [sym_label]), (STATE 2193, 3,
       [sym_comment, sym_documentation_comment, aux_sym_switch_block_repeat1])]),
     (114727, 14, [(ACTIONS 3, 1, [anon_sym_SLASH_SLASH]), (ACTIONS 5, 1,
       [anon_sym_SLASH_STAR]), (ACTIONS 7, 1, [anon_sym_SLASH_SLASH_SLASH]), (ACTIONS 9, 1,
       [sym__block_comment]), (ACTIONS 11, 1, [sym__documentation_block_comment]), (ACTIONS 149,
       1, [sym_assert_builtin]), (ACTIONS 159, 1, [anon_sym_this]), (ACTIONS 161, 1,
       [anon_sym_super]), (ACTIONS 4831, 1, [sym_identifier]), (STATE 2726, 1,
       [sym_initializer_list_entry]), (STATE 2920, 1, [sym_super]), (STATE 2994, 1, [sym_this]),
       (STATE 2194, 2, [sym_comment, sym_documentation_comment]), (STATE 2354, 2, [sym_assertion,
       sym_field_initializer])]),
     (114772, 13, [(ACTIONS 3, 1, [anon_sym_SLASH_SLASH]), (ACTIONS 5, 1,
       [anon_sym_SLASH_STAR]), (ACTIONS 7, 1, [anon_sym_SLASH_SLASH_SLASH]), (ACTIONS 9, 1,
       [sym__block_comment]), (ACTIONS 11, 1, [sym__documentation_block_comment]), (ACTIONS 474,
       1, [anon_sym_SEMI]), (ACTIONS 4833, 1, [anon_sym_LBRACE]), (ACTIONS 4835, 1,
       [anon_sym_EQ_GT]), (ACTIONS 4837, 1, [anon_sym_async]), (STATE 446, 1, [sym_block]),
       (ACTIONS 4839, 2, [anon_sym_async_STAR, anon_sym_sync_STAR]), (STATE 1772, 2,
       [sym_function_body, sym__semicolon]), (STATE 2195, 2, [sym_comment,
       sym_documentation_comment])]),
     (114815, 12, [(ACTIONS 3, 1, [anon_sym_SLASH_SLASH]), (ACTIONS 5, 1,
       [anon_sym_SLASH_STAR]), (ACTIONS 7, 1, [anon_sym_SLASH_SLASH_SLASH]), (ACTIONS 9, 1,
       [sym__block_comment]), (ACTIONS 11, 1, [sym__documentation_block_comment]), (ACTIONS 4809,
       1, [anon_sym_DOLLAR]), (ACTIONS 4811, 1, [sym__unused_escape_sequence]), (ACTIONS 4841, 1,
       [anon_sym_DQUOTE]), (STATE 2218, 1, [aux_sym__string_literal_double_quotes_repeat1]),
       (ACTIONS 4807, 2, [sym__template_chars_double_single, anon_sym_SQUOTE]), (STATE 2196, 2,
       [sym_comment, sym_documentation_comment]), (STATE 2583, 3, [sym_template_substitution,
       sym__sub_string_test, sym_escape_sequence])]),
     (114856, 7, [(ACTIONS 3, 1, [anon_sym_SLASH_SLASH]), (ACTIONS 5, 1,
       [anon_sym_SLASH_STAR]), (ACTIONS 7, 1, [anon_sym_SLASH_SLASH_SLASH]), (ACTIONS 9, 1,
       [sym__block_comment]), (ACTIONS 11, 1, [sym__documentation_block_comment]), (STATE 2197,
       2, [sym_comment, sym_documentation_comment]), (ACTIONS 4843, 9, [anon_sym_RBRACE,
       anon_sym_COMMA, anon_sym_RBRACK, anon_sym_COLON, anon_sym_RPAREN, anon_sym_EQ_GT,
       anon_sym_when, anon_sym_AMP_AMP, anon_sym_PIPE_PIPE])])]"

lemma small_run_775: "small_run 2193 114682 ts_small_parse_table_775 2198 114887"
  by (simp add: small_simps ts_small_parse_table_775_def)

definition ts_small_parse_table_776 :: "small_group list" where
  "ts_small_parse_table_776 = [
     (114887, 12, [(ACTIONS 3, 1, [anon_sym_SLASH_SLASH]), (ACTIONS 5, 1,
       [anon_sym_SLASH_STAR]), (ACTIONS 7, 1, [anon_sym_SLASH_SLASH_SLASH]), (ACTIONS 9, 1,
       [sym__block_comment]), (ACTIONS 11, 1, [sym__documentation_block_comment]), (ACTIONS 4817,
       1, [anon_sym_DOLLAR]), (ACTIONS 4819, 1, [sym__unused_escape_sequence]), (ACTIONS 4845, 1,
       [anon_sym_SQUOTE]), (STATE 2220, 1, [aux_sym__string_literal_single_quotes_repeat1]),
       (ACTIONS 4813, 2, [sym__template_chars_single_single, anon_sym_DQUOTE]), (STATE 2198, 2,
       [sym_comment, sym_documentation_comment]), (STATE 2584, 3, [sym_template_substitution,
       sym__sub_string_test, sym_escape_sequence])]),
     (114928, 7, [(ACTIONS 3, 1, [anon_sym_SLASH_SLASH]), (ACTIONS 5, 1,
       [anon_sym_SLASH_STAR]), (ACTIONS 7, 1, [anon_sym_SLASH_SLASH_SLASH]), (ACTIONS 9, 1,
       [sym__block_comment]), (ACTIONS 11, 1, [sym__documentation_block_comment]), (STATE 2199,
       2, [sym_comment, sym_documentation_comment]), (ACTIONS 4847, 9, [anon_sym_RBRACE,
       anon_sym_COMMA, anon_sym_RBRACK, anon_sym_COLON, anon_sym_RPAREN, anon_sym_EQ_GT,
       anon_sym_when, anon_sym_AMP_AMP, anon_sym_PIPE_PIPE])]),
     (114959, 13, [(ACTIONS 3, 1, [anon_sym_SLASH_SLASH]), (ACTIONS 5, 1,
       [anon_sym_SLASH_STAR]), (ACTIONS 7, 1, [anon_sym_SLASH_SLASH_SLASH]), (ACTIONS 9, 1,
       [sym__block_comment]), (ACTIONS 11, 1, [sym__documentation_block_comment]), (ACTIONS 3161,
       1, [anon_sym_LT]), (ACTIONS 3398, 1, [anon_sym_LPAREN]), (ACTIONS 4851, 1,
       [anon_sym_DOT]), (STATE 992, 1, [sym_arguments]), (STATE 2742, 1, [sym_argument_part]),
       (STATE 2743, 1, [sym_type_arguments]), (STATE 2200, 2, [sym_comment,
       sym_documentation_comment]), (ACTIONS 4849, 3, [anon_sym_RBRACE, anon_sym_COMMA,
       anon_sym_SEMI])]),
     (115002, 11, [(ACTIONS 3, 1, [anon_sym_SLASH_SLASH]), (ACTIONS 5, 1,
       [anon_sym_SLASH_STAR]), (ACTIONS 7, 1, [anon_sym_SLASH_SLASH_SLASH]), (ACTIONS 9, 1,
       [sym__block_comment]), (ACTIONS 11, 1, [sym__documentation_block_comment]), (ACTIONS 4856,
       1, [anon_sym_SQUOTE]), (ACTIONS 4859, 1, [anon_sym_SQUOTE_SQUOTE_SQUOTE]), (ACTIONS 4861,
       1, [anon_sym_DOLLAR]), (STATE 2398, 1, [sym__sub_string_test]), (STATE 2201, 3,
       [sym_comment, sym_documentation_comment,
       aux_sym__raw_string_literal_single_quotes_multiple_repeat1]), (ACTIONS 4853, 4,
       [sym__template_chars_single, sym__template_chars_raw_slash, anon_sym_DQUOTE,
       sym__unused_escape_sequence])]),
     (115041, 11, [(ACTIONS 3, 1, [anon_sym_SLASH_SLASH]), (ACTIONS 5, 1,
       [anon_sym_SLASH_STAR]), (ACTIONS 7, 1, [anon_sym_SLASH_SLASH_SLASH]), (ACTIONS 9, 1,
       [sym__block_comment]), (ACTIONS 11, 1, [sym__documentation_block_comment]), (ACTIONS 4864,
       1, [anon_sym_DQUOTE]), (ACTIONS 4870, 1, [anon_sym_DQUOTE_DQUOTE_DQUOTE]), (ACTIONS 4872,
       1, [anon_sym_DOLLAR]), (STATE 2402, 1, [sym__sub_string_test]), (STATE 2202, 3,
       [sym_comment, sym_documentation_comment,
       aux_sym__raw_string_literal_double_quotes_multiple_repeat1]), (ACTIONS 4867, 4,
       [sym__template_chars_double, sym__template_chars_raw_slash, anon_sym_SQUOTE,
       sym__unused_escape_sequence])])]"

lemma small_run_776: "small_run 2198 114887 ts_small_parse_table_776 2203 115080"
  by (simp add: small_simps ts_small_parse_table_776_def)

definition ts_small_parse_table_777 :: "small_group list" where
  "ts_small_parse_table_777 = [
     (115080, 11, [(ACTIONS 3, 1, [anon_sym_SLASH_SLASH]), (ACTIONS 5, 1,
       [anon_sym_SLASH_STAR]), (ACTIONS 7, 1, [anon_sym_SLASH_SLASH_SLASH]), (ACTIONS 9, 1,
       [sym__block_comment]), (ACTIONS 11, 1, [sym__documentation_block_comment]), (ACTIONS 4878,
       1, [anon_sym_SQUOTE]), (ACTIONS 4880, 1, [anon_sym_DOLLAR]), (ACTIONS 4883, 1,
       [sym__unused_escape_sequence]), (ACTIONS 4875, 2, [sym__template_chars_single_single,
       anon_sym_DQUOTE]), (STATE 2203, 3, [sym_comment, sym_documentation_comment,
       aux_sym__string_literal_single_quotes_repeat1]), (STATE 2584, 3,
       [sym_template_substitution, sym__sub_string_test, sym_escape_sequence])]),
     (115119, 7, [(ACTIONS 3, 1, [anon_sym_SLASH_SLASH]), (ACTIONS 5, 1,
       [anon_sym_SLASH_STAR]), (ACTIONS 7, 1, [anon_sym_SLASH_SLASH_SLASH]), (ACTIONS 9, 1,
       [sym__block_comment]), (ACTIONS 11, 1, [sym__documentation_block_comment]), (STATE 2204,
       2, [sym_comment, sym_documentation_comment]), (ACTIONS 2762, 9, [anon_sym_LBRACE,
       anon_sym_COMMA, anon_sym_LPAREN, anon_sym_GT, anon_sym_DOT, anon_sym_SEMI, anon_sym_catch,
       anon_sym_with, anon_sym_implements])]),
     (115150, 13, [(ACTIONS 3, 1, [anon_sym_SLASH_SLASH]), (ACTIONS 5, 1,
       [anon_sym_SLASH_STAR]), (ACTIONS 7, 1, [anon_sym_SLASH_SLASH_SLASH]), (ACTIONS 9, 1,
       [sym__block_comment]), (ACTIONS 11, 1, [sym__documentation_block_comment]), (ACTIONS 3161,
       1, [anon_sym_LT]), (ACTIONS 3398, 1, [anon_sym_LPAREN]), (ACTIONS 4888, 1,
       [anon_sym_DOT]), (STATE 992, 1, [sym_arguments]), (STATE 3003, 1, [sym_argument_part]),
       (STATE 3006, 1, [sym_type_arguments]), (STATE 2205, 2, [sym_comment,
       sym_documentation_comment]), (ACTIONS 4886, 3, [anon_sym_RBRACE, anon_sym_COMMA,
       anon_sym_SEMI])]),
     (115193, 11, [(ACTIONS 3, 1, [anon_sym_SLASH_SLASH]), (ACTIONS 5, 1,
       [anon_sym_SLASH_STAR]), (ACTIONS 7, 1, [anon_sym_SLASH_SLASH_SLASH]), (ACTIONS 9, 1,
       [sym__block_comment]), (ACTIONS 11, 1, [sym__documentation_block_comment]), (ACTIONS 4890,
       1, [anon_sym_DQUOTE]), (ACTIONS 4895, 1, [anon_sym_DOLLAR]), (ACTIONS 4898, 1,
       [sym__unused_escape_sequence]), (ACTIONS 4892, 2, [sym__template_chars_double_single,
       anon_sym_SQUOTE]), (STATE 2206, 3, [sym_comment, sym_documentation_comment,
       aux_sym__string_literal_double_quotes_repeat1]), (STATE 2583, 3,
       [sym_template_substitution, sym__sub_string_test, sym_escape_sequence])]),
     (115232, 13, [(ACTIONS 3, 1, [anon_sym_SLASH_SLASH]), (ACTIONS 5, 1,
       [anon_sym_SLASH_STAR]), (ACTIONS 7, 1, [anon_sym_SLASH_SLASH_SLASH]), (ACTIONS 9, 1,
       [sym__block_comment]), (ACTIONS 11, 1, [sym__documentation_block_comment]), (ACTIONS 474,
       1, [anon_sym_SEMI]), (ACTIONS 4833, 1, [anon_sym_LBRACE]), (ACTIONS 4835, 1,
       [anon_sym_EQ_GT]), (ACTIONS 4837, 1, [anon_sym_async]), (STATE 446, 1, [sym_block]),
       (ACTIONS 4839, 2, [anon_sym_async_STAR, anon_sym_sync_STAR]), (STATE 1753, 2,
       [sym_function_body, sym__semicolon]), (STATE 2207, 2, [sym_comment,
       sym_documentation_comment])])]"

lemma small_run_777: "small_run 2203 115080 ts_small_parse_table_777 2208 115275"
  by (simp add: small_simps ts_small_parse_table_777_def)

definition ts_small_parse_table_778 :: "small_group list" where
  "ts_small_parse_table_778 = [
     (115275, 12, [(ACTIONS 3, 1, [anon_sym_SLASH_SLASH]), (ACTIONS 5, 1,
       [anon_sym_SLASH_STAR]), (ACTIONS 7, 1, [anon_sym_SLASH_SLASH_SLASH]), (ACTIONS 9, 1,
       [sym__block_comment]), (ACTIONS 11, 1, [sym__documentation_block_comment]), (ACTIONS 4903,
       1, [anon_sym_SQUOTE]), (ACTIONS 4905, 1, [anon_sym_SQUOTE_SQUOTE_SQUOTE]), (ACTIONS 4907,
       1, [anon_sym_DOLLAR]), (STATE 2201, 1,
       [aux_sym__raw_string_literal_single_quotes_multiple_repeat1]), (STATE 2398, 1,
       [sym__sub_string_test]), (STATE 2208, 2, [sym_comment, sym_documentation_comment]),
       (ACTIONS 4901, 4, [sym__template_chars_single, sym__template_chars_raw_slash,
       anon_sym_DQUOTE, sym__unused_escape_sequence])]),
     (115316, 12, [(ACTIONS 3, 1, [anon_sym_SLASH_SLASH]), (ACTIONS 5, 1,
       [anon_sym_SLASH_STAR]), (ACTIONS 7, 1, [anon_sym_SLASH_SLASH_SLASH]), (ACTIONS 9, 1,
       [sym__block_comment]), (ACTIONS 11, 1, [sym__documentation_block_comment]), (ACTIONS 4909,
       1, [anon_sym_DQUOTE]), (ACTIONS 4913, 1, [anon_sym_DQUOTE_DQUOTE_DQUOTE]), (ACTIONS 4915,
       1, [anon_sym_DOLLAR]), (STATE 2202, 1,
       [aux_sym__raw_string_literal_double_quotes_multiple_repeat1]), (STATE 2402, 1,
       [sym__sub_string_test]), (STATE 2209, 2, [sym_comment, sym_documentation_comment]),
       (ACTIONS 4911, 4, [sym__template_chars_double, sym__template_chars_raw_slash,
       anon_sym_SQUOTE, sym__unused_escape_sequence])]),
     (115357, 12, [(ACTIONS 3, 1, [anon_sym_SLASH_SLASH]), (ACTIONS 5, 1,
       [anon_sym_SLASH_STAR]), (ACTIONS 7, 1, [anon_sym_SLASH_SLASH_SLASH]), (ACTIONS 9, 1,
       [sym__block_comment]), (ACTIONS 11, 1, [sym__documentation_block_comment]), (ACTIONS 4817,
       1, [anon_sym_DOLLAR]), (ACTIONS 4819, 1, [sym__unused_escape_sequence]), (ACTIONS 4917, 1,
       [anon_sym_SQUOTE]), (STATE 2203, 1, [aux_sym__string_literal_single_quotes_repeat1]),
       (ACTIONS 4813, 2, [sym__template_chars_single_single, anon_sym_DQUOTE]), (STATE 2210, 2,
       [sym_comment, sym_documentation_comment]), (STATE 2584, 3, [sym_template_substitution,
       sym__sub_string_test, sym_escape_sequence])]),
     (115398, 12, [(ACTIONS 3, 1, [anon_sym_SLASH_SLASH]), (ACTIONS 5, 1,
       [anon_sym_SLASH_STAR]), (ACTIONS 7, 1, [anon_sym_SLASH_SLASH_SLASH]), (ACTIONS 9, 1,
       [sym__block_comment]), (ACTIONS 11, 1, [sym__documentation_block_comment]), (ACTIONS 4909,
       1, [anon_sym_DQUOTE]), (ACTIONS 4915, 1, [anon_sym_DOLLAR]), (ACTIONS 4919, 1,
       [anon_sym_DQUOTE_DQUOTE_DQUOTE]), (STATE 2236, 1,
       [aux_sym__raw_string_literal_double_quotes_multiple_repeat1]), (STATE 2402, 1,
       [sym__sub_string_test]), (STATE 2211, 2, [sym_comment, sym_documentation_comment]),
       (ACTIONS 4911, 4, [sym__template_chars_double, sym__template_chars_raw_slash,
       anon_sym_SQUOTE, sym__unused_escape_sequence])]),
     (115439, 12, [(ACTIONS 3, 1, [anon_sym_SLASH_SLASH]), (ACTIONS 5, 1,
       [anon_sym_SLASH_STAR]), (ACTIONS 7, 1, [anon_sym_SLASH_SLASH_SLASH]), (ACTIONS 9, 1,
       [sym__block_comment]), (ACTIONS 11, 1, [sym__documentation_block_comment]), (ACTIONS 4809,
       1, [anon_sym_DOLLAR]), (ACTIONS 4811, 1, [sym__unused_escape_sequence]), (ACTIONS 4921, 1,
       [anon_sym_DQUOTE]), (STATE 2206, 1, [aux_sym__string_literal_double_quotes_repeat1]),
       (ACTIONS 4807, 2, [sym__template_chars_double_single, anon_sym_SQUOTE]), (STATE 2212, 2,
       [sym_comment, sym_documentation_comment]), (STATE 2583, 3, [sym_template_substitution,
       sym__sub_string_test, sym_escape_sequence])])]"

lemma small_run_778: "small_run 2208 115275 ts_small_parse_table_778 2213 115480"
  by (simp add: small_simps ts_small_parse_table_778_def)

definition ts_small_parse_table_779 :: "small_group list" where
  "ts_small_parse_table_779 = [
     (115480, 12, [(ACTIONS 3, 1, [anon_sym_SLASH_SLASH]), (ACTIONS 5, 1,
       [anon_sym_SLASH_STAR]), (ACTIONS 7, 1, [anon_sym_SLASH_SLASH_SLASH]), (ACTIONS 9, 1,
       [sym__block_comment]), (ACTIONS 11, 1, [sym__documentation_block_comment]), (ACTIONS 4903,
       1, [anon_sym_SQUOTE]), (ACTIONS 4907, 1, [anon_sym_DOLLAR]), (ACTIONS 4923, 1,
       [anon_sym_SQUOTE_SQUOTE_SQUOTE]), (STATE 2208, 1,
       [aux_sym__raw_string_literal_single_quotes_multiple_repeat1]), (STATE 2398, 1,
       [sym__sub_string_test]), (STATE 2213, 2, [sym_comment, sym_documentation_comment]),
       (ACTIONS 4901, 4, [sym__template_chars_single, sym__template_chars_raw_slash,
       anon_sym_DQUOTE, sym__unused_escape_sequence])]),
     (115521, 12, [(ACTIONS 3, 1, [anon_sym_SLASH_SLASH]), (ACTIONS 5, 1,
       [anon_sym_SLASH_STAR]), (ACTIONS 7, 1, [anon_sym_SLASH_SLASH_SLASH]), (ACTIONS 9, 1,
       [sym__block_comment]), (ACTIONS 11, 1, [sym__documentation_block_comment]), (ACTIONS 4909,
       1, [anon_sym_DQUOTE]), (ACTIONS 4915, 1, [anon_sym_DOLLAR]), (ACTIONS 4925, 1,
       [anon_sym_DQUOTE_DQUOTE_DQUOTE]), (STATE 2209, 1,
       [aux_sym__raw_string_literal_double_quotes_multiple_repeat1]), (STATE 2402, 1,
       [sym__sub_string_test]), (STATE 2214, 2, [sym_comment, sym_documentation_comment]),
       (ACTIONS 4911, 4, [sym__template_chars_double, sym__template_chars_raw_slash,
       anon_sym_SQUOTE, sym__unused_escape_sequence])]),
     (115562, 12, [(ACTIONS 3, 1, [anon_sym_SLASH_SLASH]), (ACTIONS 5, 1,
       [anon_sym_SLASH_STAR]), (ACTIONS 7, 1, [anon_sym_SLASH_SLASH_SLASH]), (ACTIONS 9, 1,
       [sym__block_comment]), (ACTIONS 11, 1, [sym__documentation_block_comment]), (ACTIONS 4903,
       1, [anon_sym_SQUOTE]), (ACTIONS 4907, 1, [anon_sym_DOLLAR]), (ACTIONS 4927, 1,
       [anon_sym_SQUOTE_SQUOTE_SQUOTE]), (STATE 2238, 1,
       [aux_sym__raw_string_literal_single_quotes_multiple_repeat1]), (STATE 2398, 1,
       [sym__sub_string_test]), (STATE 2215, 2, [sym_comment, sym_documentation_comment]),
       (ACTIONS 4901, 4, [sym__template_chars_single, sym__template_chars_raw_slash,
       anon_sym_DQUOTE, sym__unused_escape_sequence])]),
     (115603, 12, [(ACTIONS 3, 1, [anon_sym_SLASH_SLASH]), (ACTIONS 5, 1,
       [anon_sym_SLASH_STAR]), (ACTIONS 7, 1, [anon_sym_SLASH_SLASH_SLASH]), (ACTIONS 9, 1,
       [sym__block_comment]), (ACTIONS 11, 1, [sym__documentation_block_comment]), (ACTIONS 2479,
       1, [anon_sym_DOT]), (ACTIONS 3623, 1, [anon_sym_QMARK]), (ACTIONS 4929, 1,
       [anon_sym_LPAREN]), (STATE 1639, 1, [sym_parameter_type_list]), (STATE 1680, 1,
       [sym_nullable_type]), (STATE 2216, 2, [sym_comment, sym_documentation_comment]), (ACTIONS
       2487, 4, [anon_sym_Function, anon_sym_this, anon_sym_super, sym_identifier])]),
     (115644, 7, [(ACTIONS 3, 1, [anon_sym_SLASH_SLASH]), (ACTIONS 5, 1,
       [anon_sym_SLASH_STAR]), (ACTIONS 7, 1, [anon_sym_SLASH_SLASH_SLASH]), (ACTIONS 9, 1,
       [sym__block_comment]), (ACTIONS 11, 1, [sym__documentation_block_comment]), (STATE 2217,
       2, [sym_comment, sym_documentation_comment]), (ACTIONS 4932, 9, [anon_sym_RBRACE,
       anon_sym_COMMA, anon_sym_RBRACK, anon_sym_COLON, anon_sym_RPAREN, anon_sym_EQ_GT,
       anon_sym_when, anon_sym_AMP_AMP, anon_sym_PIPE_PIPE])])]"

lemma small_run_779: "small_run 2213 115480 ts_small_parse_table_779 2218 115675"
  by (simp add: small_simps ts_small_parse_table_779_def)

definition ts_small_parse_table_780 :: "small_group list" where
  "ts_small_parse_table_780 = [
     (115675, 12, [(ACTIONS 3, 1, [anon_sym_SLASH_SLASH]), (ACTIONS 5, 1,
       [anon_sym_SLASH_STAR]), (ACTIONS 7, 1, [anon_sym_SLASH_SLASH_SLASH]), (ACTIONS 9, 1,
       [sym__block_comment]), (ACTIONS 11, 1, [sym__documentation_block_comment]), (ACTIONS 4809,
       1, [anon_sym_DOLLAR]), (ACTIONS 4811, 1, [sym__unused_escape_sequence]), (ACTIONS 4934, 1,
       [anon_sym_DQUOTE]), (STATE 2206, 1, [aux_sym__string_literal_double_quotes_repeat1]),
       (ACTIONS 4807, 2, [sym__template_chars_double_single, anon_sym_SQUOTE]), (STATE 2218, 2,
       [sym_comment, sym_documentation_comment]), (STATE 2583, 3, [sym_template_substitution,
       sym__sub_string_test, sym_escape_sequence])]),
     (115716, 12, [(ACTIONS 3, 1, [anon_sym_SLASH_SLASH]), (ACTIONS 5, 1,
       [anon_sym_SLASH_STAR]), (ACTIONS 7, 1, [anon_sym_SLASH_SLASH_SLASH]), (ACTIONS 9, 1,
       [sym__block_comment]), (ACTIONS 11, 1, [sym__documentation_block_comment]), (ACTIONS 2507,
       1, [anon_sym_DOT]), (ACTIONS 3616, 1, [anon_sym_QMARK]), (ACTIONS 4936, 1,
       [anon_sym_LPAREN]), (STATE 1616, 1, [sym_parameter_type_list]), (STATE 1684, 1,
       [sym_nullable_type]), (STATE 2219, 2, [sym_comment, sym_documentation_comment]), (ACTIONS
       2515, 4, [anon_sym_Function, anon_sym_this, anon_sym_super, sym_identifier])]),
     (115757, 12, [(ACTIONS 3, 1, [anon_sym_SLASH_SLASH]), (ACTIONS 5, 1,
       [anon_sym_SLASH_STAR]), (ACTIONS 7, 1, [anon_sym_SLASH_SLASH_SLASH]), (ACTIONS 9, 1,
       [sym__block_comment]), (ACTIONS 11, 1, [sym__documentation_block_comment]), (ACTIONS 4817,
       1, [anon_sym_DOLLAR]), (ACTIONS 4819, 1, [sym__unused_escape_sequence]), (ACTIONS 4939, 1,
       [anon_sym_SQUOTE]), (STATE 2203, 1, [aux_sym__string_literal_single_quotes_repeat1]),
       (ACTIONS 4813, 2, [sym__template_chars_single_single, anon_sym_DQUOTE]), (STATE 2220, 2,
       [sym_comment, sym_documentation_comment]), (STATE 2584, 3, [sym_template_substitution,
       sym__sub_string_test, sym_escape_sequence])]),
     (115798, 14, [(ACTIONS 3, 1, [anon_sym_SLASH_SLASH]), (ACTIONS 5, 1,
       [anon_sym_SLASH_STAR]), (ACTIONS 7, 1, [anon_sym_SLASH_SLASH_SLASH]), (ACTIONS 9, 1,
       [sym__block_comment]), (ACTIONS 11, 1, [sym__documentation_block_comment]), (ACTIONS 149,
       1, [sym_assert_builtin]), (ACTIONS 159, 1, [anon_sym_this]), (ACTIONS 161, 1,
       [anon_sym_super]), (ACTIONS 4831, 1, [sym_identifier]), (STATE 2430, 1,
       [sym_initializer_list_entry]), (STATE 2920, 1, [sym_super]), (STATE 3458, 1, [sym_this]),
       (STATE 2221, 2, [sym_comment, sym_documentation_comment]), (STATE 2354, 2, [sym_assertion,
       sym_field_initializer])]),
     (115843, 12, [(ACTIONS 3, 1, [anon_sym_SLASH_SLASH]), (ACTIONS 5, 1,
       [anon_sym_SLASH_STAR]), (ACTIONS 7, 1, [anon_sym_SLASH_SLASH_SLASH]), (ACTIONS 9, 1,
       [sym__block_comment]), (ACTIONS 11, 1, [sym__documentation_block_comment]), (ACTIONS 4909,
       1, [anon_sym_DQUOTE]), (ACTIONS 4915, 1, [anon_sym_DOLLAR]), (ACTIONS 4941, 1,
       [anon_sym_DQUOTE_DQUOTE_DQUOTE]), (STATE 2202, 1,
       [aux_sym__raw_string_literal_double_quotes_multiple_repeat1]), (STATE 2402, 1,
       [sym__sub_string_test]), (STATE 2222, 2, [sym_comment, sym_documentation_comment]),
       (ACTIONS 4911, 4, [sym__template_chars_double, sym__template_chars_raw_slash,
       anon_sym_SQUOTE, sym__unused_escape_sequence])])]"

lemma small_run_780: "small_run 2218 115675 ts_small_parse_table_780 2223 115884"
  by (simp add: small_simps ts_small_parse_table_780_def)

definition ts_small_parse_table_781 :: "small_group list" where
  "ts_small_parse_table_781 = [
     (115884, 12, [(ACTIONS 3, 1, [anon_sym_SLASH_SLASH]), (ACTIONS 5, 1,
       [anon_sym_SLASH_STAR]), (ACTIONS 7, 1, [anon_sym_SLASH_SLASH_SLASH]), (ACTIONS 9, 1,
       [sym__block_comment]), (ACTIONS 11, 1, [sym__documentation_block_comment]), (ACTIONS 4903,
       1, [anon_sym_SQUOTE]), (ACTIONS 4907, 1, [anon_sym_DOLLAR]), (ACTIONS 4943, 1,
       [anon_sym_SQUOTE_SQUOTE_SQUOTE]), (STATE 2201, 1,
       [aux_sym__raw_string_literal_single_quotes_multiple_repeat1]), (STATE 2398, 1,
       [sym__sub_string_test]), (STATE 2223, 2, [sym_comment, sym_documentation_comment]),
       (ACTIONS 4901, 4, [sym__template_chars_single, sym__template_chars_raw_slash,
       anon_sym_DQUOTE, sym__unused_escape_sequence])]),
     (115925, 15, [(ACTIONS 3, 1, [anon_sym_SLASH_SLASH]), (ACTIONS 5, 1,
       [anon_sym_SLASH_STAR]), (ACTIONS 7, 1, [anon_sym_SLASH_SLASH_SLASH]), (ACTIONS 9, 1,
       [sym__block_comment]), (ACTIONS 11, 1, [sym__documentation_block_comment]), (ACTIONS 4578,
       1, [anon_sym_LBRACE]), (ACTIONS 4582, 1, [anon_sym_extends]), (ACTIONS 4584, 1,
       [anon_sym_with]), (ACTIONS 4586, 1, [anon_sym_implements]), (STATE 1766, 1,
       [sym_class_body]), (STATE 2023, 1, [sym__implements]), (STATE 2572, 1, [sym_superclass]),
       (STATE 3187, 1, [sym_interfaces]), (STATE 3248, 1, [sym_mixins]), (STATE 2224, 2,
       [sym_comment, sym_documentation_comment])]),
     (115972, 12, [(ACTIONS 3, 1, [anon_sym_SLASH_SLASH]), (ACTIONS 5, 1,
       [anon_sym_SLASH_STAR]), (ACTIONS 7, 1, [anon_sym_SLASH_SLASH_SLASH]), (ACTIONS 9, 1,
       [sym__block_comment]), (ACTIONS 11, 1, [sym__documentation_block_comment]), (ACTIONS 3692,
       1, [anon_sym_DOT]), (ACTIONS 4947, 1, [anon_sym_EQ]), (STATE 1612, 1,
       [sym__type_dot_identifier]), (ACTIONS 1320, 2, [anon_sym_Function, sym_identifier]),
       (ACTIONS 2015, 2, [anon_sym_QMARK, anon_sym_LT]), (ACTIONS 4945, 2, [anon_sym_COMMA,
       anon_sym_SEMI]), (STATE 2225, 2, [sym_comment, sym_documentation_comment])]),
     (116013, 12, [(ACTIONS 3, 1, [anon_sym_SLASH_SLASH]), (ACTIONS 5, 1,
       [anon_sym_SLASH_STAR]), (ACTIONS 7, 1, [anon_sym_SLASH_SLASH_SLASH]), (ACTIONS 9, 1,
       [sym__block_comment]), (ACTIONS 11, 1, [sym__documentation_block_comment]), (ACTIONS 4817,
       1, [anon_sym_DOLLAR]), (ACTIONS 4819, 1, [sym__unused_escape_sequence]), (ACTIONS 4949, 1,
       [anon_sym_SQUOTE]), (STATE 2210, 1, [aux_sym__string_literal_single_quotes_repeat1]),
       (ACTIONS 4813, 2, [sym__template_chars_single_single, anon_sym_DQUOTE]), (STATE 2226, 2,
       [sym_comment, sym_documentation_comment]), (STATE 2584, 3, [sym_template_substitution,
       sym__sub_string_test, sym_escape_sequence])]),
     (116054, 12, [(ACTIONS 3, 1, [anon_sym_SLASH_SLASH]), (ACTIONS 5, 1,
       [anon_sym_SLASH_STAR]), (ACTIONS 7, 1, [anon_sym_SLASH_SLASH_SLASH]), (ACTIONS 9, 1,
       [sym__block_comment]), (ACTIONS 11, 1, [sym__documentation_block_comment]), (ACTIONS 4809,
       1, [anon_sym_DOLLAR]), (ACTIONS 4811, 1, [sym__unused_escape_sequence]), (ACTIONS 4951, 1,
       [anon_sym_DQUOTE]), (STATE 2212, 1, [aux_sym__string_literal_double_quotes_repeat1]),
       (ACTIONS 4807, 2, [sym__template_chars_double_single, anon_sym_SQUOTE]), (STATE 2227, 2,
       [sym_comment, sym_documentation_comment]), (STATE 2583, 3, [sym_template_substitution,
       sym__sub_string_test, sym_escape_sequence])])]"

lemma small_run_781: "small_run 2223 115884 ts_small_parse_table_781 2228 116095"
  by (simp add: small_simps ts_small_parse_table_781_def)

definition ts_small_parse_table_782 :: "small_group list" where
  "ts_small_parse_table_782 = [
     (116095, 14, [(ACTIONS 3, 1, [anon_sym_SLASH_SLASH]), (ACTIONS 5, 1,
       [anon_sym_SLASH_STAR]), (ACTIONS 7, 1, [anon_sym_SLASH_SLASH_SLASH]), (ACTIONS 9, 1,
       [sym__block_comment]), (ACTIONS 11, 1, [sym__documentation_block_comment]), (ACTIONS 4955,
       1, [anon_sym_class]), (ACTIONS 4957, 1, [anon_sym_interface]), (ACTIONS 4959, 1,
       [anon_sym_base]), (ACTIONS 4961, 1, [anon_sym_mixin]), (STATE 2957, 1, [sym_base]), (STATE
       3515, 1, [sym_mixin]), (STATE 3525, 1, [sym_interface]), (ACTIONS 4953, 2,
       [anon_sym_final, anon_sym_inline]), (STATE 2228, 2, [sym_comment,
       sym_documentation_comment])]),
     (116140, 12, [(ACTIONS 3, 1, [anon_sym_SLASH_SLASH]), (ACTIONS 5, 1,
       [anon_sym_SLASH_STAR]), (ACTIONS 7, 1, [anon_sym_SLASH_SLASH_SLASH]), (ACTIONS 9, 1,
       [sym__block_comment]), (ACTIONS 11, 1, [sym__documentation_block_comment]), (ACTIONS 4909,
       1, [anon_sym_DQUOTE]), (ACTIONS 4915, 1, [anon_sym_DOLLAR]), (ACTIONS 4963, 1,
       [anon_sym_DQUOTE_DQUOTE_DQUOTE]), (STATE 2202, 1,
       [aux_sym__raw_string_literal_double_quotes_multiple_repeat1]), (STATE 2402, 1,
       [sym__sub_string_test]), (STATE 2229, 2, [sym_comment, sym_documentation_comment]),
       (ACTIONS 4911, 4, [sym__template_chars_double, sym__template_chars_raw_slash,
       anon_sym_SQUOTE, sym__unused_escape_sequence])]),
     (116181, 7, [(ACTIONS 3, 1, [anon_sym_SLASH_SLASH]), (ACTIONS 5, 1,
       [anon_sym_SLASH_STAR]), (ACTIONS 7, 1, [anon_sym_SLASH_SLASH_SLASH]), (ACTIONS 9, 1,
       [sym__block_comment]), (ACTIONS 11, 1, [sym__documentation_block_comment]), (STATE 2230,
       2, [sym_comment, sym_documentation_comment]), (ACTIONS 4965, 9, [anon_sym_RBRACE,
       anon_sym_COMMA, anon_sym_RBRACK, anon_sym_COLON, anon_sym_RPAREN, anon_sym_EQ_GT,
       anon_sym_when, anon_sym_AMP_AMP, anon_sym_PIPE_PIPE])]),
     (116212, 7, [(ACTIONS 3, 1, [anon_sym_SLASH_SLASH]), (ACTIONS 5, 1,
       [anon_sym_SLASH_STAR]), (ACTIONS 7, 1, [anon_sym_SLASH_SLASH_SLASH]), (ACTIONS 9, 1,
       [sym__block_comment]), (ACTIONS 11, 1, [sym__documentation_block_comment]), (STATE 2231,
       2, [sym_comment, sym_documentation_comment]), (ACTIONS 4620, 9, [anon_sym_RBRACE,
       anon_sym_COMMA, anon_sym_RBRACK, anon_sym_COLON, anon_sym_RPAREN, anon_sym_EQ_GT,
       anon_sym_when, anon_sym_AMP_AMP, anon_sym_PIPE_PIPE])]),
     (116243, 12, [(ACTIONS 3, 1, [anon_sym_SLASH_SLASH]), (ACTIONS 5, 1,
       [anon_sym_SLASH_STAR]), (ACTIONS 7, 1, [anon_sym_SLASH_SLASH_SLASH]), (ACTIONS 9, 1,
       [sym__block_comment]), (ACTIONS 11, 1, [sym__documentation_block_comment]), (ACTIONS 4817,
       1, [anon_sym_DOLLAR]), (ACTIONS 4819, 1, [sym__unused_escape_sequence]), (ACTIONS 4967, 1,
       [anon_sym_SQUOTE]), (STATE 2203, 1, [aux_sym__string_literal_single_quotes_repeat1]),
       (ACTIONS 4813, 2, [sym__template_chars_single_single, anon_sym_DQUOTE]), (STATE 2232, 2,
       [sym_comment, sym_documentation_comment]), (STATE 2584, 3, [sym_template_substitution,
       sym__sub_string_test, sym_escape_sequence])])]"

lemma small_run_782: "small_run 2228 116095 ts_small_parse_table_782 2233 116284"
  by (simp add: small_simps ts_small_parse_table_782_def)

definition ts_small_parse_table_783 :: "small_group list" where
  "ts_small_parse_table_783 = [
     (116284, 12, [(ACTIONS 3, 1, [anon_sym_SLASH_SLASH]), (ACTIONS 5, 1,
       [anon_sym_SLASH_STAR]), (ACTIONS 7, 1, [anon_sym_SLASH_SLASH_SLASH]), (ACTIONS 9, 1,
       [sym__block_comment]), (ACTIONS 11, 1, [sym__documentation_block_comment]), (ACTIONS 4809,
       1, [anon_sym_DOLLAR]), (ACTIONS 4811, 1, [sym__unused_escape_sequence]), (ACTIONS 4969, 1,
       [anon_sym_DQUOTE]), (STATE 2206, 1, [aux_sym__string_literal_double_quotes_repeat1]),
       (ACTIONS 4807, 2, [sym__template_chars_double_single, anon_sym_SQUOTE]), (STATE 2233, 2,
       [sym_comment, sym_documentation_comment]), (STATE 2583, 3, [sym_template_substitution,
       sym__sub_string_test, sym_escape_sequence])]),
     (116325, 15, [(ACTIONS 3, 1, [anon_sym_SLASH_SLASH]), (ACTIONS 5, 1,
       [anon_sym_SLASH_STAR]), (ACTIONS 7, 1, [anon_sym_SLASH_SLASH_SLASH]), (ACTIONS 9, 1,
       [sym__block_comment]), (ACTIONS 11, 1, [sym__documentation_block_comment]), (ACTIONS 4578,
       1, [anon_sym_LBRACE]), (ACTIONS 4582, 1, [anon_sym_extends]), (ACTIONS 4584, 1,
       [anon_sym_with]), (ACTIONS 4586, 1, [anon_sym_implements]), (STATE 1738, 1,
       [sym_class_body]), (STATE 2023, 1, [sym__implements]), (STATE 2586, 1, [sym_superclass]),
       (STATE 3062, 1, [sym_interfaces]), (STATE 3248, 1, [sym_mixins]), (STATE 2234, 2,
       [sym_comment, sym_documentation_comment])]),
     (116372, 15, [(ACTIONS 3, 1, [anon_sym_SLASH_SLASH]), (ACTIONS 5, 1,
       [anon_sym_SLASH_STAR]), (ACTIONS 7, 1, [anon_sym_SLASH_SLASH_SLASH]), (ACTIONS 9, 1,
       [sym__block_comment]), (ACTIONS 11, 1, [sym__documentation_block_comment]), (ACTIONS 3511,
       1, [anon_sym_LT]), (ACTIONS 4584, 1, [anon_sym_with]), (ACTIONS 4586, 1,
       [anon_sym_implements]), (ACTIONS 4971, 1, [anon_sym_LBRACE]), (STATE 1757, 1,
       [sym_enum_body]), (STATE 2023, 1, [sym__implements]), (STATE 2410, 1,
       [sym_type_parameters]), (STATE 2587, 1, [sym_mixins]), (STATE 3092, 1, [sym_interfaces]),
       (STATE 2235, 2, [sym_comment, sym_documentation_comment])]),
     (116419, 12, [(ACTIONS 3, 1, [anon_sym_SLASH_SLASH]), (ACTIONS 5, 1,
       [anon_sym_SLASH_STAR]), (ACTIONS 7, 1, [anon_sym_SLASH_SLASH_SLASH]), (ACTIONS 9, 1,
       [sym__block_comment]), (ACTIONS 11, 1, [sym__documentation_block_comment]), (ACTIONS 4909,
       1, [anon_sym_DQUOTE]), (ACTIONS 4915, 1, [anon_sym_DOLLAR]), (ACTIONS 4973, 1,
       [anon_sym_DQUOTE_DQUOTE_DQUOTE]), (STATE 2202, 1,
       [aux_sym__raw_string_literal_double_quotes_multiple_repeat1]), (STATE 2402, 1,
       [sym__sub_string_test]), (STATE 2236, 2, [sym_comment, sym_documentation_comment]),
       (ACTIONS 4911, 4, [sym__template_chars_double, sym__template_chars_raw_slash,
       anon_sym_SQUOTE, sym__unused_escape_sequence])])]"

lemma small_run_783: "small_run 2233 116284 ts_small_parse_table_783 2237 116460"
  by (simp add: small_simps ts_small_parse_table_783_def)

definition ts_small_parse_table_784 :: "small_group list" where
  "ts_small_parse_table_784 = [
     (116460, 12, [(ACTIONS 3, 1, [anon_sym_SLASH_SLASH]), (ACTIONS 5, 1,
       [anon_sym_SLASH_STAR]), (ACTIONS 7, 1, [anon_sym_SLASH_SLASH_SLASH]), (ACTIONS 9, 1,
       [sym__block_comment]), (ACTIONS 11, 1, [sym__documentation_block_comment]), (ACTIONS 4977,
       1, [anon_sym_if]), (ACTIONS 4979, 1, [anon_sym_deferred]), (STATE 2336, 1,
       [aux_sym_configurable_uri_repeat1]), (STATE 2543, 1, [sym_configuration_uri]), (STATE
       3093, 1, [sym__deferred]), (STATE 2237, 2, [sym_comment, sym_documentation_comment]),
       (ACTIONS 4975, 4, [anon_sym_as, anon_sym_SEMI, anon_sym_show, anon_sym_hide])]),
     (116501, 12, [(ACTIONS 3, 1, [anon_sym_SLASH_SLASH]), (ACTIONS 5, 1,
       [anon_sym_SLASH_STAR]), (ACTIONS 7, 1, [anon_sym_SLASH_SLASH_SLASH]), (ACTIONS 9, 1,
       [sym__block_comment]), (ACTIONS 11, 1, [sym__documentation_block_comment]), (ACTIONS 4903,
       1, [anon_sym_SQUOTE]), (ACTIONS 4907, 1, [anon_sym_DOLLAR]), (ACTIONS 4981, 1,
       [anon_sym_SQUOTE_SQUOTE_SQUOTE]), (STATE 2201, 1,
       [aux_sym__raw_string_literal_single_quotes_multiple_repeat1]), (STATE 2398, 1,
       [sym__sub_string_test]), (STATE 2238, 2, [sym_comment, sym_documentation_comment]),
       (ACTIONS 4901, 4, [sym__template_chars_single, sym__template_chars_raw_slash,
       anon_sym_DQUOTE, sym__unused_escape_sequence])]),
     (116542, 12, [(ACTIONS 3, 1, [anon_sym_SLASH_SLASH]), (ACTIONS 5, 1,
       [anon_sym_SLASH_STAR]), (ACTIONS 7, 1, [anon_sym_SLASH_SLASH_SLASH]), (ACTIONS 9, 1,
       [sym__block_comment]), (ACTIONS 11, 1, [sym__documentation_block_comment]), (ACTIONS 4809,
       1, [anon_sym_DOLLAR]), (ACTIONS 4811, 1, [sym__unused_escape_sequence]), (ACTIONS 4983, 1,
       [anon_sym_DQUOTE]), (STATE 2191, 1, [aux_sym__string_literal_double_quotes_repeat1]),
       (ACTIONS 4807, 2, [sym__template_chars_double_single, anon_sym_SQUOTE]), (STATE 2239, 2,
       [sym_comment, sym_documentation_comment]), (STATE 2583, 3, [sym_template_substitution,
       sym__sub_string_test, sym_escape_sequence])]),
     (116583, 12, [(ACTIONS 3, 1, [anon_sym_SLASH_SLASH]), (ACTIONS 5, 1,
       [anon_sym_SLASH_STAR]), (ACTIONS 7, 1, [anon_sym_SLASH_SLASH_SLASH]), (ACTIONS 9, 1,
       [sym__block_comment]), (ACTIONS 11, 1, [sym__documentation_block_comment]), (ACTIONS 4817,
       1, [anon_sym_DOLLAR]), (ACTIONS 4819, 1, [sym__unused_escape_sequence]), (ACTIONS 4985, 1,
       [anon_sym_SQUOTE]), (STATE 2192, 1, [aux_sym__string_literal_single_quotes_repeat1]),
       (ACTIONS 4813, 2, [sym__template_chars_single_single, anon_sym_DQUOTE]), (STATE 2240, 2,
       [sym_comment, sym_documentation_comment]), (STATE 2584, 3, [sym_template_substitution,
       sym__sub_string_test, sym_escape_sequence])]),
     (116624, 12, [(ACTIONS 3, 1, [anon_sym_SLASH_SLASH]), (ACTIONS 5, 1,
       [anon_sym_SLASH_STAR]), (ACTIONS 7, 1, [anon_sym_SLASH_SLASH_SLASH]), (ACTIONS 9, 1,
       [sym__block_comment]), (ACTIONS 11, 1, [sym__documentation_block_comment]), (ACTIONS 4903,
       1, [anon_sym_SQUOTE]), (ACTIONS 4907, 1, [anon_sym_DOLLAR]), (ACTIONS 4987, 1,
       [anon_sym_SQUOTE_SQUOTE_SQUOTE]), (STATE 2201, 1,
       [aux_sym__raw_string_literal_single_quotes_multiple_repeat1]), (STATE 2398, 1,
       [sym__sub_string_test]), (STATE 2241, 2, [sym_comment, sym_documentation_comment]),
       (ACTIONS 4901, 4, [sym__template_chars_single, sym__template_chars_raw_slash,
       anon_sym_DQUOTE, sym__unused_escape_sequence])])]"

lemma small_run_784: "small_run 2237 116460 ts_small_parse_table_784 2242 116665"
  by (simp add: small_simps ts_small_parse_table_784_def)

definition ts_small_parse_table_785 :: "small_group list" where
  "ts_small_parse_table_785 = [
     (116665, 12, [(ACTIONS 3, 1, [anon_sym_SLASH_SLASH]), (ACTIONS 5, 1,
       [anon_sym_SLASH_STAR]), (ACTIONS 7, 1, [anon_sym_SLASH_SLASH_SLASH]), (ACTIONS 9, 1,
       [sym__block_comment]), (ACTIONS 11, 1, [sym__documentation_block_comment]), (ACTIONS 4909,
       1, [anon_sym_DQUOTE]), (ACTIONS 4915, 1, [anon_sym_DOLLAR]), (ACTIONS 4989, 1,
       [anon_sym_DQUOTE_DQUOTE_DQUOTE]), (STATE 2202, 1,
       [aux_sym__raw_string_literal_double_quotes_multiple_repeat1]), (STATE 2402, 1,
       [sym__sub_string_test]), (STATE 2242, 2, [sym_comment, sym_documentation_comment]),
       (ACTIONS 4911, 4, [sym__template_chars_double, sym__template_chars_raw_slash,
       anon_sym_SQUOTE, sym__unused_escape_sequence])]),
     (116706, 12, [(ACTIONS 3, 1, [anon_sym_SLASH_SLASH]), (ACTIONS 5, 1,
       [anon_sym_SLASH_STAR]), (ACTIONS 7, 1, [anon_sym_SLASH_SLASH_SLASH]), (ACTIONS 9, 1,
       [sym__block_comment]), (ACTIONS 11, 1, [sym__documentation_block_comment]), (ACTIONS 4903,
       1, [anon_sym_SQUOTE]), (ACTIONS 4907, 1, [anon_sym_DOLLAR]), (ACTIONS 4991, 1,
       [anon_sym_SQUOTE_SQUOTE_SQUOTE]), (STATE 2223, 1,
       [aux_sym__raw_string_literal_single_quotes_multiple_repeat1]), (STATE 2398, 1,
       [sym__sub_string_test]), (STATE 2243, 2, [sym_comment, sym_documentation_comment]),
       (ACTIONS 4901, 4, [sym__template_chars_single, sym__template_chars_raw_slash,
       anon_sym_DQUOTE, sym__unused_escape_sequence])]),
     (116747, 12, [(ACTIONS 3, 1, [anon_sym_SLASH_SLASH]), (ACTIONS 5, 1,
       [anon_sym_SLASH_STAR]), (ACTIONS 7, 1, [anon_sym_SLASH_SLASH_SLASH]), (ACTIONS 9, 1,
       [sym__block_comment]), (ACTIONS 11, 1, [sym__documentation_block_comment]), (ACTIONS 4909,
       1, [anon_sym_DQUOTE]), (ACTIONS 4915, 1, [anon_sym_DOLLAR]), (ACTIONS 4993, 1,
       [anon_sym_DQUOTE_DQUOTE_DQUOTE]), (STATE 2229, 1,
       [aux_sym__raw_string_literal_double_quotes_multiple_repeat1]), (STATE 2402, 1,
       [sym__sub_string_test]), (STATE 2244, 2, [sym_comment, sym_documentation_comment]),
       (ACTIONS 4911, 4, [sym__template_chars_double, sym__template_chars_raw_slash,
       anon_sym_SQUOTE, sym__unused_escape_sequence])]),
     (116788, 12, [(ACTIONS 3, 1, [anon_sym_SLASH_SLASH]), (ACTIONS 5, 1,
       [anon_sym_SLASH_STAR]), (ACTIONS 7, 1, [anon_sym_SLASH_SLASH_SLASH]), (ACTIONS 9, 1,
       [sym__block_comment]), (ACTIONS 11, 1, [sym__documentation_block_comment]), (ACTIONS 4817,
       1, [anon_sym_DOLLAR]), (ACTIONS 4819, 1, [sym__unused_escape_sequence]), (ACTIONS 4995, 1,
       [anon_sym_SQUOTE]), (STATE 2203, 1, [aux_sym__string_literal_single_quotes_repeat1]),
       (ACTIONS 4813, 2, [sym__template_chars_single_single, anon_sym_DQUOTE]), (STATE 2245, 2,
       [sym_comment, sym_documentation_comment]), (STATE 2584, 3, [sym_template_substitution,
       sym__sub_string_test, sym_escape_sequence])]),
     (116829, 12, [(ACTIONS 3, 1, [anon_sym_SLASH_SLASH]), (ACTIONS 5, 1,
       [anon_sym_SLASH_STAR]), (ACTIONS 7, 1, [anon_sym_SLASH_SLASH_SLASH]), (ACTIONS 9, 1,
       [sym__block_comment]), (ACTIONS 11, 1, [sym__documentation_block_comment]), (ACTIONS 4809,
       1, [anon_sym_DOLLAR]), (ACTIONS 4811, 1, [sym__unused_escape_sequence]), (ACTIONS 4997, 1,
       [anon_sym_DQUOTE]), (STATE 2206, 1, [aux_sym__string_literal_double_quotes_repeat1]),
       (ACTIONS 4807, 2, [sym__template_chars_double_single, anon_sym_SQUOTE]), (STATE 2246, 2,
       [sym_comment, sym_documentation_comment]), (STATE 2583, 3, [sym_template_substitution,
       sym__sub_string_test, sym_escape_sequence])])]"

lemma small_run_785: "small_run 2242 116665 ts_small_parse_table_785 2247 116870"
  by (simp add: small_simps ts_small_parse_table_785_def)

definition ts_small_parse_table_786 :: "small_group list" where
  "ts_small_parse_table_786 = [
     (116870, 12, [(ACTIONS 3, 1, [anon_sym_SLASH_SLASH]), (ACTIONS 5, 1,
       [anon_sym_SLASH_STAR]), (ACTIONS 7, 1, [anon_sym_SLASH_SLASH_SLASH]), (ACTIONS 9, 1,
       [sym__block_comment]), (ACTIONS 11, 1, [sym__documentation_block_comment]), (ACTIONS 4278,
       1, [anon_sym_LPAREN]), (ACTIONS 4500, 1, [anon_sym_DOT]), (STATE 1612, 1,
       [sym__type_dot_identifier]), (STATE 2016, 1, [sym__strict_formal_parameter_list]), (STATE
       3503, 1, [sym_formal_parameter_list]), (STATE 2247, 2, [sym_comment,
       sym_documentation_comment]), (ACTIONS 2015, 4, [anon_sym_QMARK, anon_sym_LT,
       anon_sym_Function, anon_sym_operator])]),
     (116911, 12, [(ACTIONS 3, 1, [anon_sym_SLASH_SLASH]), (ACTIONS 5, 1,
       [anon_sym_SLASH_STAR]), (ACTIONS 7, 1, [anon_sym_SLASH_SLASH_SLASH]), (ACTIONS 9, 1,
       [sym__block_comment]), (ACTIONS 11, 1, [sym__documentation_block_comment]), (ACTIONS 4909,
       1, [anon_sym_DQUOTE]), (ACTIONS 4915, 1, [anon_sym_DOLLAR]), (ACTIONS 4999, 1,
       [anon_sym_DQUOTE_DQUOTE_DQUOTE]), (STATE 2222, 1,
       [aux_sym__raw_string_literal_double_quotes_multiple_repeat1]), (STATE 2402, 1,
       [sym__sub_string_test]), (STATE 2248, 2, [sym_comment, sym_documentation_comment]),
       (ACTIONS 4911, 4, [sym__template_chars_double, sym__template_chars_raw_slash,
       anon_sym_SQUOTE, sym__unused_escape_sequence])]),
     (116952, 12, [(ACTIONS 3, 1, [anon_sym_SLASH_SLASH]), (ACTIONS 5, 1,
       [anon_sym_SLASH_STAR]), (ACTIONS 7, 1, [anon_sym_SLASH_SLASH_SLASH]), (ACTIONS 9, 1,
       [sym__block_comment]), (ACTIONS 11, 1, [sym__documentation_block_comment]), (ACTIONS 4903,
       1, [anon_sym_SQUOTE]), (ACTIONS 4907, 1, [anon_sym_DOLLAR]), (ACTIONS 5001, 1,
       [anon_sym_SQUOTE_SQUOTE_SQUOTE]), (STATE 2241, 1,
       [aux_sym__raw_string_literal_single_quotes_multiple_repeat1]), (STATE 2398, 1,
       [sym__sub_string_test]), (STATE 2249, 2, [sym_comment, sym_documentation_comment]),
       (ACTIONS 4901, 4, [sym__template_chars_single, sym__template_chars_raw_slash,
       anon_sym_DQUOTE, sym__unused_escape_sequence])]),
     (116993, 12, [(ACTIONS 3, 1, [anon_sym_SLASH_SLASH]), (ACTIONS 5, 1,
       [anon_sym_SLASH_STAR]), (ACTIONS 7, 1, [anon_sym_SLASH_SLASH_SLASH]), (ACTIONS 9, 1,
       [sym__block_comment]), (ACTIONS 11, 1, [sym__documentation_block_comment]), (ACTIONS 4909,
       1, [anon_sym_DQUOTE]), (ACTIONS 4915, 1, [anon_sym_DOLLAR]), (ACTIONS 5003, 1,
       [anon_sym_DQUOTE_DQUOTE_DQUOTE]), (STATE 2242, 1,
       [aux_sym__raw_string_literal_double_quotes_multiple_repeat1]), (STATE 2402, 1,
       [sym__sub_string_test]), (STATE 2250, 2, [sym_comment, sym_documentation_comment]),
       (ACTIONS 4911, 4, [sym__template_chars_double, sym__template_chars_raw_slash,
       anon_sym_SQUOTE, sym__unused_escape_sequence])]),
     (117034, 12, [(ACTIONS 3, 1, [anon_sym_SLASH_SLASH]), (ACTIONS 5, 1,
       [anon_sym_SLASH_STAR]), (ACTIONS 7, 1, [anon_sym_SLASH_SLASH_SLASH]), (ACTIONS 9, 1,
       [sym__block_comment]), (ACTIONS 11, 1, [sym__documentation_block_comment]), (ACTIONS 4817,
       1, [anon_sym_DOLLAR]), (ACTIONS 4819, 1, [sym__unused_escape_sequence]), (ACTIONS 5005, 1,
       [anon_sym_SQUOTE]), (STATE 2245, 1, [aux_sym__string_literal_single_quotes_repeat1]),
       (ACTIONS 4813, 2, [sym__template_chars_single_single, anon_sym_DQUOTE]), (STATE 2251, 2,
       [sym_comment, sym_documentation_comment]), (STATE 2584, 3, [sym_template_substitution,
       sym__sub_string_test, sym_escape_sequence])])]"

lemma small_run_786: "small_run 2247 116870 ts_small_parse_table_786 2252 117075"
  by (simp add: small_simps ts_small_parse_table_786_def)

definition ts_small_parse_table_787 :: "small_group list" where
  "ts_small_parse_table_787 = [
     (117075, 14, [(ACTIONS 3, 1, [anon_sym_SLASH_SLASH]), (ACTIONS 5, 1,
       [anon_sym_SLASH_STAR]), (ACTIONS 7, 1, [anon_sym_SLASH_SLASH_SLASH]), (ACTIONS 9, 1,
       [sym__block_comment]), (ACTIONS 11, 1, [sym__documentation_block_comment]), (ACTIONS 149,
       1, [sym_assert_builtin]), (ACTIONS 159, 1, [anon_sym_this]), (ACTIONS 161, 1,
       [anon_sym_super]), (ACTIONS 4795, 1, [sym_identifier]), (STATE 2303, 1,
       [sym_initializer_list_entry]), (STATE 2941, 1, [sym_super]), (STATE 2947, 1, [sym_this]),
       (STATE 2252, 2, [sym_comment, sym_documentation_comment]), (STATE 2354, 2, [sym_assertion,
       sym_field_initializer])]),
     (117120, 12, [(ACTIONS 3, 1, [anon_sym_SLASH_SLASH]), (ACTIONS 5, 1,
       [anon_sym_SLASH_STAR]), (ACTIONS 7, 1, [anon_sym_SLASH_SLASH_SLASH]), (ACTIONS 9, 1,
       [sym__block_comment]), (ACTIONS 11, 1, [sym__documentation_block_comment]), (ACTIONS 4809,
       1, [anon_sym_DOLLAR]), (ACTIONS 4811, 1, [sym__unused_escape_sequence]), (ACTIONS 5007, 1,
       [anon_sym_DQUOTE]), (STATE 2246, 1, [aux_sym__string_literal_double_quotes_repeat1]),
       (ACTIONS 4807, 2, [sym__template_chars_double_single, anon_sym_SQUOTE]), (STATE 2253, 2,
       [sym_comment, sym_documentation_comment]), (STATE 2583, 3, [sym_template_substitution,
       sym__sub_string_test, sym_escape_sequence])]),
     (117161, 12, [(ACTIONS 3, 1, [anon_sym_SLASH_SLASH]), (ACTIONS 5, 1,
       [anon_sym_SLASH_STAR]), (ACTIONS 7, 1, [anon_sym_SLASH_SLASH_SLASH]), (ACTIONS 9, 1,
       [sym__block_comment]), (ACTIONS 11, 1, [sym__documentation_block_comment]), (ACTIONS 4903,
       1, [anon_sym_SQUOTE]), (ACTIONS 4907, 1, [anon_sym_DOLLAR]), (ACTIONS 5009, 1,
       [anon_sym_SQUOTE_SQUOTE_SQUOTE]), (STATE 2261, 1,
       [aux_sym__raw_string_literal_single_quotes_multiple_repeat1]), (STATE 2398, 1,
       [sym__sub_string_test]), (STATE 2254, 2, [sym_comment, sym_documentation_comment]),
       (ACTIONS 4901, 4, [sym__template_chars_single, sym__template_chars_raw_slash,
       anon_sym_DQUOTE, sym__unused_escape_sequence])]),
     (117202, 12, [(ACTIONS 3, 1, [anon_sym_SLASH_SLASH]), (ACTIONS 5, 1,
       [anon_sym_SLASH_STAR]), (ACTIONS 7, 1, [anon_sym_SLASH_SLASH_SLASH]), (ACTIONS 9, 1,
       [sym__block_comment]), (ACTIONS 11, 1, [sym__documentation_block_comment]), (ACTIONS 4817,
       1, [anon_sym_DOLLAR]), (ACTIONS 4819, 1, [sym__unused_escape_sequence]), (ACTIONS 5011, 1,
       [anon_sym_SQUOTE]), (STATE 2232, 1, [aux_sym__string_literal_single_quotes_repeat1]),
       (ACTIONS 4813, 2, [sym__template_chars_single_single, anon_sym_DQUOTE]), (STATE 2255, 2,
       [sym_comment, sym_documentation_comment]), (STATE 2584, 3, [sym_template_substitution,
       sym__sub_string_test, sym_escape_sequence])]),
     (117243, 12, [(ACTIONS 3, 1, [anon_sym_SLASH_SLASH]), (ACTIONS 5, 1,
       [anon_sym_SLASH_STAR]), (ACTIONS 7, 1, [anon_sym_SLASH_SLASH_SLASH]), (ACTIONS 9, 1,
       [sym__block_comment]), (ACTIONS 11, 1, [sym__documentation_block_comment]), (ACTIONS 4809,
       1, [anon_sym_DOLLAR]), (ACTIONS 4811, 1, [sym__unused_escape_sequence]), (ACTIONS 5013, 1,
       [anon_sym_DQUOTE]), (STATE 2233, 1, [aux_sym__string_literal_double_quotes_repeat1]),
       (ACTIONS 4807, 2, [sym__template_chars_double_single, anon_sym_SQUOTE]), (STATE 2256, 2,
       [sym_comment, sym_documentation_comment]), (STATE 2583, 3, [sym_template_substitution,
       sym__sub_string_test, sym_escape_sequence])])]"

lemma small_run_787: "small_run 2252 117075 ts_small_parse_table_787 2257 117284"
  by (simp add: small_simps ts_small_parse_table_787_def)

definition ts_small_parse_table_788 :: "small_group list" where
  "ts_small_parse_table_788 = [
     (117284, 15, [(ACTIONS 3, 1, [anon_sym_SLASH_SLASH]), (ACTIONS 5, 1,
       [anon_sym_SLASH_STAR]), (ACTIONS 7, 1, [anon_sym_SLASH_SLASH_SLASH]), (ACTIONS 9, 1,
       [sym__block_comment]), (ACTIONS 11, 1, [sym__documentation_block_comment]), (ACTIONS 3511,
       1, [anon_sym_LT]), (ACTIONS 4584, 1, [anon_sym_with]), (ACTIONS 4586, 1,
       [anon_sym_implements]), (ACTIONS 4971, 1, [anon_sym_LBRACE]), (STATE 1750, 1,
       [sym_enum_body]), (STATE 2023, 1, [sym__implements]), (STATE 2436, 1,
       [sym_type_parameters]), (STATE 2563, 1, [sym_mixins]), (STATE 3243, 1, [sym_interfaces]),
       (STATE 2257, 2, [sym_comment, sym_documentation_comment])]),
     (117331, 8, [(ACTIONS 3, 1, [anon_sym_SLASH_SLASH]), (ACTIONS 5, 1,
       [anon_sym_SLASH_STAR]), (ACTIONS 7, 1, [anon_sym_SLASH_SLASH_SLASH]), (ACTIONS 9, 1,
       [sym__block_comment]), (ACTIONS 11, 1, [sym__documentation_block_comment]), (STATE 2258,
       2, [sym_comment, sym_documentation_comment]), (ACTIONS 5017, 4, [anon_sym_LBRACE,
       anon_sym_LBRACK, anon_sym_LPAREN, anon_sym_LT]), (ACTIONS 5015, 5, [sym_void_type,
       anon_sym_Function, anon_sym_this, anon_sym_super, sym_identifier])]),
     (117364, 12, [(ACTIONS 3, 1, [anon_sym_SLASH_SLASH]), (ACTIONS 5, 1,
       [anon_sym_SLASH_STAR]), (ACTIONS 7, 1, [anon_sym_SLASH_SLASH_SLASH]), (ACTIONS 9, 1,
       [sym__block_comment]), (ACTIONS 11, 1, [sym__documentation_block_comment]), (ACTIONS 2517,
       1, [anon_sym_DOT]), (ACTIONS 3616, 1, [anon_sym_QMARK]), (ACTIONS 5019, 1,
       [anon_sym_LPAREN]), (STATE 1616, 1, [sym_parameter_type_list]), (STATE 1684, 1,
       [sym_nullable_type]), (STATE 2259, 2, [sym_comment, sym_documentation_comment]), (ACTIONS
       2528, 4, [anon_sym_Function, anon_sym_this, anon_sym_super, sym_identifier])]),
     (117405, 14, [(ACTIONS 3, 1, [anon_sym_SLASH_SLASH]), (ACTIONS 5, 1,
       [anon_sym_SLASH_STAR]), (ACTIONS 7, 1, [anon_sym_SLASH_SLASH_SLASH]), (ACTIONS 9, 1,
       [sym__block_comment]), (ACTIONS 11, 1, [sym__documentation_block_comment]), (ACTIONS 3511,
       1, [anon_sym_LT]), (ACTIONS 4278, 1, [anon_sym_LPAREN]), (ACTIONS 4947, 1, [anon_sym_EQ]),
       (STATE 2016, 1, [sym__strict_formal_parameter_list]), (STATE 2020, 1,
       [sym_formal_parameter_list]), (STATE 2289, 1, [sym__formal_parameter_part]), (STATE 2932,
       1, [sym_type_parameters]), (ACTIONS 4945, 2, [anon_sym_COMMA, anon_sym_SEMI]), (STATE
       2260, 2, [sym_comment, sym_documentation_comment])]),
     (117450, 12, [(ACTIONS 3, 1, [anon_sym_SLASH_SLASH]), (ACTIONS 5, 1,
       [anon_sym_SLASH_STAR]), (ACTIONS 7, 1, [anon_sym_SLASH_SLASH_SLASH]), (ACTIONS 9, 1,
       [sym__block_comment]), (ACTIONS 11, 1, [sym__documentation_block_comment]), (ACTIONS 4903,
       1, [anon_sym_SQUOTE]), (ACTIONS 4907, 1, [anon_sym_DOLLAR]), (ACTIONS 5023, 1,
       [anon_sym_SQUOTE_SQUOTE_SQUOTE]), (STATE 2201, 1,
       [aux_sym__raw_string_literal_single_quotes_multiple_repeat1]), (STATE 2398, 1,
       [sym__sub_string_test]), (STATE 2261, 2, [sym_comment, sym_documentation_comment]),
       (ACTIONS 4901, 4, [sym__template_chars_single, sym__template_chars_raw_slash,
       anon_sym_DQUOTE, sym__unused_escape_sequence])])]"

lemma small_run_788: "small_run 2257 117284 ts_small_parse_table_788 2262 117491"
  by (simp add: small_simps ts_small_parse_table_788_def)

definition ts_small_parse_table_789 :: "small_group list" where
  "ts_small_parse_table_789 = [
     (117491, 12, [(ACTIONS 3, 1, [anon_sym_SLASH_SLASH]), (ACTIONS 5, 1,
       [anon_sym_SLASH_STAR]), (ACTIONS 7, 1, [anon_sym_SLASH_SLASH_SLASH]), (ACTIONS 9, 1,
       [sym__block_comment]), (ACTIONS 11, 1, [sym__documentation_block_comment]), (ACTIONS 2507,
       1, [anon_sym_DOT]), (ACTIONS 3616, 1, [anon_sym_QMARK]), (ACTIONS 4936, 1,
       [anon_sym_LPAREN]), (STATE 1616, 1, [sym_parameter_type_list]), (STATE 2216, 1,
       [sym_nullable_type]), (STATE 2262, 2, [sym_comment, sym_documentation_comment]), (ACTIONS
       2515, 4, [anon_sym_Function, anon_sym_this, anon_sym_super, sym_identifier])]),
     (117532, 11, [(ACTIONS 3, 1, [anon_sym_SLASH_SLASH]), (ACTIONS 5, 1,
       [anon_sym_SLASH_STAR]), (ACTIONS 7, 1, [anon_sym_SLASH_SLASH_SLASH]), (ACTIONS 9, 1,
       [sym__block_comment]), (ACTIONS 11, 1, [sym__documentation_block_comment]), (ACTIONS 5025,
       1, [anon_sym_DQUOTE]), (ACTIONS 5029, 1, [anon_sym_DOLLAR]), (STATE 2281, 1,
       [aux_sym__raw_string_literal_double_quotes_repeat1]), (STATE 2448, 1,
       [sym__sub_string_test]), (STATE 2263, 2, [sym_comment, sym_documentation_comment]),
       (ACTIONS 5027, 4, [sym__template_chars_double_single, sym__template_chars_raw_slash,
       anon_sym_SQUOTE, sym__unused_escape_sequence])]),
     (117570, 10, [(ACTIONS 3, 1, [anon_sym_SLASH_SLASH]), (ACTIONS 5, 1,
       [anon_sym_SLASH_STAR]), (ACTIONS 7, 1, [anon_sym_SLASH_SLASH_SLASH]), (ACTIONS 9, 1,
       [sym__block_comment]), (ACTIONS 11, 1, [sym__documentation_block_comment]), (ACTIONS 5033,
       1, [anon_sym_COMMA]), (ACTIONS 5035, 1, [anon_sym_async]), (STATE 2291, 1,
       [aux_sym_initializers_repeat1]), (STATE 2264, 2, [sym_comment,
       sym_documentation_comment]), (ACTIONS 5031, 5, [anon_sym_LBRACE, anon_sym_SEMI,
       anon_sym_EQ_GT, anon_sym_async_STAR, anon_sym_sync_STAR])]),
     (117606, 10, [(ACTIONS 3, 1, [anon_sym_SLASH_SLASH]), (ACTIONS 5, 1,
       [anon_sym_SLASH_STAR]), (ACTIONS 7, 1, [anon_sym_SLASH_SLASH_SLASH]), (ACTIONS 9, 1,
       [sym__block_comment]), (ACTIONS 11, 1, [sym__documentation_block_comment]), (ACTIONS 5039,
       1, [anon_sym_async]), (ACTIONS 5041, 1, [anon_sym_native]), (STATE 2446, 1,
       [sym__native]), (STATE 2265, 2, [sym_comment, sym_documentation_comment]), (ACTIONS 5037,
       5, [anon_sym_LBRACE, anon_sym_SEMI, anon_sym_EQ_GT, anon_sym_async_STAR,
       anon_sym_sync_STAR])]),
     (117642, 14, [(ACTIONS 3, 1, [anon_sym_SLASH_SLASH]), (ACTIONS 5, 1,
       [anon_sym_SLASH_STAR]), (ACTIONS 7, 1, [anon_sym_SLASH_SLASH_SLASH]), (ACTIONS 9, 1,
       [sym__block_comment]), (ACTIONS 11, 1, [sym__documentation_block_comment]), (ACTIONS 143,
       1, [anon_sym_AT]), (ACTIONS 2154, 1, [anon_sym_QMARK]), (ACTIONS 5043, 1,
       [sym_identifier]), (STATE 1308, 1, [aux_sym__metadata_repeat1]), (STATE 1361, 1,
       [sym_annotation]), (STATE 2456, 1, [sym_nullable_type]), (STATE 2779, 1, [sym__metadata]),
       (STATE 3267, 1, [sym_type_parameter]), (STATE 2266, 2, [sym_comment,
       sym_documentation_comment])])]"

lemma small_run_789: "small_run 2262 117491 ts_small_parse_table_789 2267 117686"
  by (simp add: small_simps ts_small_parse_table_789_def)

definition ts_small_parse_table_790 :: "small_group list" where
  "ts_small_parse_table_790 = [
     (117686, 14, [(ACTIONS 3, 1, [anon_sym_SLASH_SLASH]), (ACTIONS 5, 1,
       [anon_sym_SLASH_STAR]), (ACTIONS 7, 1, [anon_sym_SLASH_SLASH_SLASH]), (ACTIONS 9, 1,
       [sym__block_comment]), (ACTIONS 11, 1, [sym__documentation_block_comment]), (ACTIONS 143,
       1, [anon_sym_AT]), (ACTIONS 2154, 1, [anon_sym_QMARK]), (ACTIONS 5043, 1,
       [sym_identifier]), (STATE 1308, 1, [aux_sym__metadata_repeat1]), (STATE 1361, 1,
       [sym_annotation]), (STATE 2456, 1, [sym_nullable_type]), (STATE 2705, 1,
       [sym_type_parameter]), (STATE 2779, 1, [sym__metadata]), (STATE 2267, 2, [sym_comment,
       sym_documentation_comment])]),
     (117730, 8, [(ACTIONS 3, 1, [anon_sym_SLASH_SLASH]), (ACTIONS 5, 1,
       [anon_sym_SLASH_STAR]), (ACTIONS 7, 1, [anon_sym_SLASH_SLASH_SLASH]), (ACTIONS 9, 1,
       [sym__block_comment]), (ACTIONS 11, 1, [sym__documentation_block_comment]), (STATE 2268,
       2, [sym_comment, sym_documentation_comment]), (ACTIONS 5045, 4, [anon_sym_DQUOTE,
       anon_sym_SQUOTE, anon_sym_r_DQUOTE, anon_sym_r_SQUOTE]), (ACTIONS 5047, 4,
       [anon_sym_DQUOTE_DQUOTE_DQUOTE, anon_sym_SQUOTE_SQUOTE_SQUOTE,
       anon_sym_r_DQUOTE_DQUOTE_DQUOTE, anon_sym_r_SQUOTE_SQUOTE_SQUOTE])]),
     (117762, 14, [(ACTIONS 3, 1, [anon_sym_SLASH_SLASH]), (ACTIONS 5, 1,
       [anon_sym_SLASH_STAR]), (ACTIONS 7, 1, [anon_sym_SLASH_SLASH_SLASH]), (ACTIONS 9, 1,
       [sym__block_comment]), (ACTIONS 11, 1, [sym__documentation_block_comment]), (ACTIONS 143,
       1, [anon_sym_AT]), (ACTIONS 2154, 1, [anon_sym_QMARK]), (ACTIONS 5043, 1,
       [sym_identifier]), (STATE 1308, 1, [aux_sym__metadata_repeat1]), (STATE 1361, 1,
       [sym_annotation]), (STATE 2456, 1, [sym_nullable_type]), (STATE 2738, 1,
       [sym_type_parameter]), (STATE 2779, 1, [sym__metadata]), (STATE 2269, 2, [sym_comment,
       sym_documentation_comment])]),
     (117806, 8, [(ACTIONS 3, 1, [anon_sym_SLASH_SLASH]), (ACTIONS 5, 1,
       [anon_sym_SLASH_STAR]), (ACTIONS 7, 1, [anon_sym_SLASH_SLASH_SLASH]), (ACTIONS 9, 1,
       [sym__block_comment]), (ACTIONS 11, 1, [sym__documentation_block_comment]), (ACTIONS 5051,
       1, [anon_sym_LPAREN]), (STATE 2270, 2, [sym_comment, sym_documentation_comment]), (ACTIONS
       5049, 7, [anon_sym_final, sym_void_type, anon_sym_var, anon_sym_Function,
       sym_const_builtin, anon_sym_late, sym_identifier])]),
     (117838, 8, [(ACTIONS 3, 1, [anon_sym_SLASH_SLASH]), (ACTIONS 5, 1,
       [anon_sym_SLASH_STAR]), (ACTIONS 7, 1, [anon_sym_SLASH_SLASH_SLASH]), (ACTIONS 9, 1,
       [sym__block_comment]), (ACTIONS 11, 1, [sym__documentation_block_comment]), (STATE 2271,
       2, [sym_comment, sym_documentation_comment]), (ACTIONS 5053, 4, [anon_sym_DQUOTE,
       anon_sym_SQUOTE, anon_sym_r_DQUOTE, anon_sym_r_SQUOTE]), (ACTIONS 5055, 4,
       [anon_sym_DQUOTE_DQUOTE_DQUOTE, anon_sym_SQUOTE_SQUOTE_SQUOTE,
       anon_sym_r_DQUOTE_DQUOTE_DQUOTE, anon_sym_r_SQUOTE_SQUOTE_SQUOTE])])]"

lemma small_run_790: "small_run 2267 117686 ts_small_parse_table_790 2272 117870"
  by (simp add: small_simps ts_small_parse_table_790_def)

definition ts_small_parse_table_791 :: "small_group list" where
  "ts_small_parse_table_791 = [
     (117870, 14, [(ACTIONS 3, 1, [anon_sym_SLASH_SLASH]), (ACTIONS 5, 1,
       [anon_sym_SLASH_STAR]), (ACTIONS 7, 1, [anon_sym_SLASH_SLASH_SLASH]), (ACTIONS 9, 1,
       [sym__block_comment]), (ACTIONS 11, 1, [sym__documentation_block_comment]), (ACTIONS 143,
       1, [anon_sym_AT]), (ACTIONS 2154, 1, [anon_sym_QMARK]), (ACTIONS 5043, 1,
       [sym_identifier]), (STATE 1308, 1, [aux_sym__metadata_repeat1]), (STATE 1361, 1,
       [sym_annotation]), (STATE 2456, 1, [sym_nullable_type]), (STATE 2779, 1, [sym__metadata]),
       (STATE 2849, 1, [sym_type_parameter]), (STATE 2272, 2, [sym_comment,
       sym_documentation_comment])]),
     (117914, 10, [(ACTIONS 3, 1, [anon_sym_SLASH_SLASH]), (ACTIONS 5, 1,
       [anon_sym_SLASH_STAR]), (ACTIONS 7, 1, [anon_sym_SLASH_SLASH_SLASH]), (ACTIONS 9, 1,
       [sym__block_comment]), (ACTIONS 11, 1, [sym__documentation_block_comment]), (ACTIONS 1686,
       1, [anon_sym_QMARK]), (ACTIONS 3398, 1, [anon_sym_LPAREN]), (STATE 2374, 1,
       [sym_arguments]), (STATE 2273, 2, [sym_comment, sym_documentation_comment]), (ACTIONS
       1680, 5, [anon_sym_LBRACK, anon_sym_LT, anon_sym_BANG, anon_sym_DOT,
       anon_sym_QMARK_DOT])]),
     (117950, 8, [(ACTIONS 3, 1, [anon_sym_SLASH_SLASH]), (ACTIONS 5, 1,
       [anon_sym_SLASH_STAR]), (ACTIONS 7, 1, [anon_sym_SLASH_SLASH_SLASH]), (ACTIONS 9, 1,
       [sym__block_comment]), (ACTIONS 11, 1, [sym__documentation_block_comment]), (STATE 2274,
       2, [sym_comment, sym_documentation_comment]), (ACTIONS 5057, 4, [anon_sym_DQUOTE,
       anon_sym_SQUOTE, anon_sym_r_DQUOTE, anon_sym_r_SQUOTE]), (ACTIONS 5059, 4,
       [anon_sym_DQUOTE_DQUOTE_DQUOTE, anon_sym_SQUOTE_SQUOTE_SQUOTE,
       anon_sym_r_DQUOTE_DQUOTE_DQUOTE, anon_sym_r_SQUOTE_SQUOTE_SQUOTE])]),
     (117982, 9, [(ACTIONS 3, 1, [anon_sym_SLASH_SLASH]), (ACTIONS 5, 1,
       [anon_sym_SLASH_STAR]), (ACTIONS 7, 1, [anon_sym_SLASH_SLASH_SLASH]), (ACTIONS 9, 1,
       [sym__block_comment]), (ACTIONS 11, 1, [sym__documentation_block_comment]), (ACTIONS 2154,
       1, [anon_sym_QMARK]), (STATE 2475, 1, [sym_nullable_type]), (STATE 2275, 2, [sym_comment,
       sym_documentation_comment]), (ACTIONS 5061, 6, [anon_sym_RBRACE, anon_sym_COMMA,
       anon_sym_RBRACK, anon_sym_COLON, anon_sym_RPAREN, anon_sym_EQ])]),
     (118016, 10, [(ACTIONS 3, 1, [anon_sym_SLASH_SLASH]), (ACTIONS 5, 1,
       [anon_sym_SLASH_STAR]), (ACTIONS 7, 1, [anon_sym_SLASH_SLASH_SLASH]), (ACTIONS 9, 1,
       [sym__block_comment]), (ACTIONS 11, 1, [sym__documentation_block_comment]), (ACTIONS 5041,
       1, [anon_sym_native]), (ACTIONS 5065, 1, [anon_sym_async]), (STATE 2460, 1,
       [sym__native]), (STATE 2276, 2, [sym_comment, sym_documentation_comment]), (ACTIONS 5063,
       5, [anon_sym_LBRACE, anon_sym_SEMI, anon_sym_EQ_GT, anon_sym_async_STAR,
       anon_sym_sync_STAR])])]"

lemma small_run_791: "small_run 2272 117870 ts_small_parse_table_791 2277 118052"
  by (simp add: small_simps ts_small_parse_table_791_def)

definition ts_small_parse_table_792 :: "small_group list" where
  "ts_small_parse_table_792 = [
     (118052, 14, [(ACTIONS 3, 1, [anon_sym_SLASH_SLASH]), (ACTIONS 5, 1,
       [anon_sym_SLASH_STAR]), (ACTIONS 7, 1, [anon_sym_SLASH_SLASH_SLASH]), (ACTIONS 9, 1,
       [sym__block_comment]), (ACTIONS 11, 1, [sym__documentation_block_comment]), (ACTIONS 143,
       1, [anon_sym_AT]), (ACTIONS 2154, 1, [anon_sym_QMARK]), (ACTIONS 5043, 1,
       [sym_identifier]), (STATE 1308, 1, [aux_sym__metadata_repeat1]), (STATE 1361, 1,
       [sym_annotation]), (STATE 2456, 1, [sym_nullable_type]), (STATE 2779, 1, [sym__metadata]),
       (STATE 2966, 1, [sym_type_parameter]), (STATE 2277, 2, [sym_comment,
       sym_documentation_comment])]),
     (118096, 7, [(ACTIONS 3, 1, [anon_sym_SLASH_SLASH]), (ACTIONS 5, 1,
       [anon_sym_SLASH_STAR]), (ACTIONS 7, 1, [anon_sym_SLASH_SLASH_SLASH]), (ACTIONS 9, 1,
       [sym__block_comment]), (ACTIONS 11, 1, [sym__documentation_block_comment]), (STATE 2278,
       2, [sym_comment, sym_documentation_comment]), (ACTIONS 5067, 8, [anon_sym_RBRACE,
       anon_sym_COMMA, anon_sym_RBRACK, anon_sym_COLON, anon_sym_RPAREN, anon_sym_EQ,
       anon_sym_SEMI, anon_sym_in])]),
     (118126, 13, [(ACTIONS 3, 1, [anon_sym_SLASH_SLASH]), (ACTIONS 5, 1,
       [anon_sym_SLASH_STAR]), (ACTIONS 7, 1, [anon_sym_SLASH_SLASH_SLASH]), (ACTIONS 9, 1,
       [sym__block_comment]), (ACTIONS 11, 1, [sym__documentation_block_comment]), (ACTIONS 3511,
       1, [anon_sym_LT]), (ACTIONS 4278, 1, [anon_sym_LPAREN]), (STATE 2016, 1,
       [sym__strict_formal_parameter_list]), (STATE 2020, 1, [sym_formal_parameter_list]), (STATE
       2288, 1, [sym__formal_parameter_part]), (STATE 2932, 1, [sym_type_parameters]), (ACTIONS
       5069, 2, [anon_sym_COMMA, anon_sym_RPAREN]), (STATE 2279, 2, [sym_comment,
       sym_documentation_comment])]),
     (118168, 10, [(ACTIONS 3, 1, [anon_sym_SLASH_SLASH]), (ACTIONS 5, 1,
       [anon_sym_SLASH_STAR]), (ACTIONS 7, 1, [anon_sym_SLASH_SLASH_SLASH]), (ACTIONS 9, 1,
       [sym__block_comment]), (ACTIONS 11, 1, [sym__documentation_block_comment]), (ACTIONS 5074,
       1, [anon_sym_SQUOTE]), (ACTIONS 5076, 1, [anon_sym_DOLLAR]), (STATE 2439, 1,
       [sym__sub_string_test]), (STATE 2280, 3, [sym_comment, sym_documentation_comment,
       aux_sym__raw_string_literal_single_quotes_repeat1]), (ACTIONS 5071, 4,
       [sym__template_chars_single_single, sym__template_chars_raw_slash, anon_sym_DQUOTE,
       sym__unused_escape_sequence])]),
     (118204, 10, [(ACTIONS 3, 1, [anon_sym_SLASH_SLASH]), (ACTIONS 5, 1,
       [anon_sym_SLASH_STAR]), (ACTIONS 7, 1, [anon_sym_SLASH_SLASH_SLASH]), (ACTIONS 9, 1,
       [sym__block_comment]), (ACTIONS 11, 1, [sym__documentation_block_comment]), (ACTIONS 5079,
       1, [anon_sym_DQUOTE]), (ACTIONS 5084, 1, [anon_sym_DOLLAR]), (STATE 2448, 1,
       [sym__sub_string_test]), (STATE 2281, 3, [sym_comment, sym_documentation_comment,
       aux_sym__raw_string_literal_double_quotes_repeat1]), (ACTIONS 5081, 4,
       [sym__template_chars_double_single, sym__template_chars_raw_slash, anon_sym_SQUOTE,
       sym__unused_escape_sequence])])]"

lemma small_run_792: "small_run 2277 118052 ts_small_parse_table_792 2282 118240"
  by (simp add: small_simps ts_small_parse_table_792_def)

definition ts_small_parse_table_793 :: "small_group list" where
  "ts_small_parse_table_793 = [
     (118240, 8, [(ACTIONS 3, 1, [anon_sym_SLASH_SLASH]), (ACTIONS 5, 1,
       [anon_sym_SLASH_STAR]), (ACTIONS 7, 1, [anon_sym_SLASH_SLASH_SLASH]), (ACTIONS 9, 1,
       [sym__block_comment]), (ACTIONS 11, 1, [sym__documentation_block_comment]), (ACTIONS 5090,
       1, [anon_sym_in]), (STATE 2282, 2, [sym_comment, sym_documentation_comment]), (ACTIONS
       5087, 7, [anon_sym_RBRACE, anon_sym_COMMA, anon_sym_RBRACK, anon_sym_COLON,
       anon_sym_RPAREN, anon_sym_EQ, anon_sym_SEMI])]),
     (118272, 14, [(ACTIONS 3, 1, [anon_sym_SLASH_SLASH]), (ACTIONS 5, 1,
       [anon_sym_SLASH_STAR]), (ACTIONS 7, 1, [anon_sym_SLASH_SLASH_SLASH]), (ACTIONS 9, 1,
       [sym__block_comment]), (ACTIONS 11, 1, [sym__documentation_block_comment]), (ACTIONS 143,
       1, [anon_sym_AT]), (ACTIONS 2154, 1, [anon_sym_QMARK]), (ACTIONS 5043, 1,
       [sym_identifier]), (STATE 1308, 1, [aux_sym__metadata_repeat1]), (STATE 1361, 1,
       [sym_annotation]), (STATE 2456, 1, [sym_nullable_type]), (STATE 2779, 1, [sym__metadata]),
       (STATE 2823, 1, [sym_type_parameter]), (STATE 2283, 2, [sym_comment,
       sym_documentation_comment])]),
     (118316, 13, [(ACTIONS 3, 1, [anon_sym_SLASH_SLASH]), (ACTIONS 5, 1,
       [anon_sym_SLASH_STAR]), (ACTIONS 7, 1, [anon_sym_SLASH_SLASH_SLASH]), (ACTIONS 9, 1,
       [sym__block_comment]), (ACTIONS 11, 1, [sym__documentation_block_comment]), (ACTIONS 3511,
       1, [anon_sym_LT]), (ACTIONS 4278, 1, [anon_sym_LPAREN]), (STATE 2016, 1,
       [sym__strict_formal_parameter_list]), (STATE 2020, 1, [sym_formal_parameter_list]), (STATE
       2288, 1, [sym__formal_parameter_part]), (STATE 2932, 1, [sym_type_parameters]), (ACTIONS
       5092, 2, [anon_sym_COMMA, anon_sym_RPAREN]), (STATE 2284, 2, [sym_comment,
       sym_documentation_comment])]),
     (118358, 10, [(ACTIONS 3, 1, [anon_sym_SLASH_SLASH]), (ACTIONS 5, 1,
       [anon_sym_SLASH_STAR]), (ACTIONS 7, 1, [anon_sym_SLASH_SLASH_SLASH]), (ACTIONS 9, 1,
       [sym__block_comment]), (ACTIONS 11, 1, [sym__documentation_block_comment]), (ACTIONS 5041,
       1, [anon_sym_native]), (ACTIONS 5096, 1, [anon_sym_async]), (STATE 2506, 1,
       [sym__native]), (STATE 2285, 2, [sym_comment, sym_documentation_comment]), (ACTIONS 5094,
       5, [anon_sym_LBRACE, anon_sym_SEMI, anon_sym_EQ_GT, anon_sym_async_STAR,
       anon_sym_sync_STAR])]),
     (118394, 14, [(ACTIONS 3, 1, [anon_sym_SLASH_SLASH]), (ACTIONS 5, 1,
       [anon_sym_SLASH_STAR]), (ACTIONS 7, 1, [anon_sym_SLASH_SLASH_SLASH]), (ACTIONS 9, 1,
       [sym__block_comment]), (ACTIONS 11, 1, [sym__documentation_block_comment]), (ACTIONS 143,
       1, [anon_sym_AT]), (ACTIONS 1741, 1, [anon_sym_RBRACE]), (ACTIONS 5098, 1,
       [sym_identifier]), (ACTIONS 5100, 1, [anon_sym_SEMI]), (STATE 1308, 1,
       [aux_sym__metadata_repeat1]), (STATE 1361, 1, [sym_annotation]), (STATE 2992, 1,
       [sym_enum_constant]), (STATE 3537, 1, [sym__metadata]), (STATE 2286, 2, [sym_comment,
       sym_documentation_comment])])]"

lemma small_run_793: "small_run 2282 118240 ts_small_parse_table_793 2287 118438"
  by (simp add: small_simps ts_small_parse_table_793_def)

definition ts_small_parse_table_794 :: "small_group list" where
  "ts_small_parse_table_794 = [
     (118438, 14, [(ACTIONS 3, 1, [anon_sym_SLASH_SLASH]), (ACTIONS 5, 1,
       [anon_sym_SLASH_STAR]), (ACTIONS 7, 1, [anon_sym_SLASH_SLASH_SLASH]), (ACTIONS 9, 1,
       [sym__block_comment]), (ACTIONS 11, 1, [sym__documentation_block_comment]), (ACTIONS 143,
       1, [anon_sym_AT]), (ACTIONS 1883, 1, [anon_sym_RBRACE]), (ACTIONS 5098, 1,
       [sym_identifier]), (ACTIONS 5102, 1, [anon_sym_SEMI]), (STATE 1308, 1,
       [aux_sym__metadata_repeat1]), (STATE 1361, 1, [sym_annotation]), (STATE 2992, 1,
       [sym_enum_constant]), (STATE 3537, 1, [sym__metadata]), (STATE 2287, 2, [sym_comment,
       sym_documentation_comment])]),
     (118482, 9, [(ACTIONS 3, 1, [anon_sym_SLASH_SLASH]), (ACTIONS 5, 1,
       [anon_sym_SLASH_STAR]), (ACTIONS 7, 1, [anon_sym_SLASH_SLASH_SLASH]), (ACTIONS 9, 1,
       [sym__block_comment]), (ACTIONS 11, 1, [sym__documentation_block_comment]), (ACTIONS 2154,
       1, [anon_sym_QMARK]), (STATE 2445, 1, [sym_nullable_type]), (STATE 2288, 2, [sym_comment,
       sym_documentation_comment]), (ACTIONS 5104, 6, [anon_sym_RBRACE, anon_sym_COMMA,
       anon_sym_RBRACK, anon_sym_COLON, anon_sym_RPAREN, anon_sym_EQ])]),
     (118516, 10, [(ACTIONS 3, 1, [anon_sym_SLASH_SLASH]), (ACTIONS 5, 1,
       [anon_sym_SLASH_STAR]), (ACTIONS 7, 1, [anon_sym_SLASH_SLASH_SLASH]), (ACTIONS 9, 1,
       [sym__block_comment]), (ACTIONS 11, 1, [sym__documentation_block_comment]), (ACTIONS 5041,
       1, [anon_sym_native]), (ACTIONS 5108, 1, [anon_sym_async]), (STATE 2526, 1,
       [sym__native]), (STATE 2289, 2, [sym_comment, sym_documentation_comment]), (ACTIONS 5106,
       5, [anon_sym_LBRACE, anon_sym_SEMI, anon_sym_EQ_GT, anon_sym_async_STAR,
       anon_sym_sync_STAR])]),
     (118552, 11, [(ACTIONS 3, 1, [anon_sym_SLASH_SLASH]), (ACTIONS 5, 1,
       [anon_sym_SLASH_STAR]), (ACTIONS 7, 1, [anon_sym_SLASH_SLASH_SLASH]), (ACTIONS 9, 1,
       [sym__block_comment]), (ACTIONS 11, 1, [sym__documentation_block_comment]), (ACTIONS 5029,
       1, [anon_sym_DOLLAR]), (ACTIONS 5110, 1, [anon_sym_DQUOTE]), (STATE 2281, 1,
       [aux_sym__raw_string_literal_double_quotes_repeat1]), (STATE 2448, 1,
       [sym__sub_string_test]), (STATE 2290, 2, [sym_comment, sym_documentation_comment]),
       (ACTIONS 5027, 4, [sym__template_chars_double_single, sym__template_chars_raw_slash,
       anon_sym_SQUOTE, sym__unused_escape_sequence])]),
     (118590, 9, [(ACTIONS 3, 1, [anon_sym_SLASH_SLASH]), (ACTIONS 5, 1,
       [anon_sym_SLASH_STAR]), (ACTIONS 7, 1, [anon_sym_SLASH_SLASH_SLASH]), (ACTIONS 9, 1,
       [sym__block_comment]), (ACTIONS 11, 1, [sym__documentation_block_comment]), (ACTIONS 5114,
       1, [anon_sym_COMMA]), (ACTIONS 5117, 1, [anon_sym_async]), (STATE 2291, 3, [sym_comment,
       sym_documentation_comment, aux_sym_initializers_repeat1]), (ACTIONS 5112, 5,
       [anon_sym_LBRACE, anon_sym_SEMI, anon_sym_EQ_GT, anon_sym_async_STAR,
       anon_sym_sync_STAR])])]"

lemma small_run_794: "small_run 2287 118438 ts_small_parse_table_794 2292 118624"
  by (simp add: small_simps ts_small_parse_table_794_def)

definition ts_small_parse_table_795 :: "small_group list" where
  "ts_small_parse_table_795 = [
     (118624, 7, [(ACTIONS 3, 1, [anon_sym_SLASH_SLASH]), (ACTIONS 5, 1,
       [anon_sym_SLASH_STAR]), (ACTIONS 7, 1, [anon_sym_SLASH_SLASH_SLASH]), (ACTIONS 9, 1,
       [sym__block_comment]), (ACTIONS 11, 1, [sym__documentation_block_comment]), (STATE 2292,
       2, [sym_comment, sym_documentation_comment]), (ACTIONS 5090, 8, [anon_sym_RBRACE,
       anon_sym_COMMA, anon_sym_RBRACK, anon_sym_COLON, anon_sym_RPAREN, anon_sym_EQ,
       anon_sym_SEMI, anon_sym_in])]),
     (118654, 9, [(ACTIONS 3, 1, [anon_sym_SLASH_SLASH]), (ACTIONS 5, 1,
       [anon_sym_SLASH_STAR]), (ACTIONS 7, 1, [anon_sym_SLASH_SLASH_SLASH]), (ACTIONS 9, 1,
       [sym__block_comment]), (ACTIONS 11, 1, [sym__documentation_block_comment]), (ACTIONS 4460,
       1, [anon_sym_LPAREN]), (ACTIONS 2772, 2, [anon_sym_QMARK, anon_sym_LT]), (STATE 2293, 2,
       [sym_comment, sym_documentation_comment]), (ACTIONS 2774, 5, [anon_sym_Function,
       anon_sym_get, anon_sym_operator, anon_sym_set, sym_identifier])]),
     (118688, 11, [(ACTIONS 3, 1, [anon_sym_SLASH_SLASH]), (ACTIONS 5, 1,
       [anon_sym_SLASH_STAR]), (ACTIONS 7, 1, [anon_sym_SLASH_SLASH_SLASH]), (ACTIONS 9, 1,
       [sym__block_comment]), (ACTIONS 11, 1, [sym__documentation_block_comment]), (ACTIONS 5029,
       1, [anon_sym_DOLLAR]), (ACTIONS 5119, 1, [anon_sym_DQUOTE]), (STATE 2263, 1,
       [aux_sym__raw_string_literal_double_quotes_repeat1]), (STATE 2448, 1,
       [sym__sub_string_test]), (STATE 2294, 2, [sym_comment, sym_documentation_comment]),
       (ACTIONS 5027, 4, [sym__template_chars_double_single, sym__template_chars_raw_slash,
       anon_sym_SQUOTE, sym__unused_escape_sequence])]),
     (118726, 11, [(ACTIONS 3, 1, [anon_sym_SLASH_SLASH]), (ACTIONS 5, 1,
       [anon_sym_SLASH_STAR]), (ACTIONS 7, 1, [anon_sym_SLASH_SLASH_SLASH]), (ACTIONS 9, 1,
       [sym__block_comment]), (ACTIONS 11, 1, [sym__documentation_block_comment]), (ACTIONS 5123,
       1, [anon_sym_SQUOTE]), (ACTIONS 5125, 1, [anon_sym_DOLLAR]), (STATE 2280, 1,
       [aux_sym__raw_string_literal_single_quotes_repeat1]), (STATE 2439, 1,
       [sym__sub_string_test]), (STATE 2295, 2, [sym_comment, sym_documentation_comment]),
       (ACTIONS 5121, 4, [sym__template_chars_single_single, sym__template_chars_raw_slash,
       anon_sym_DQUOTE, sym__unused_escape_sequence])]),
     (118764, 10, [(ACTIONS 3, 1, [anon_sym_SLASH_SLASH]), (ACTIONS 5, 1,
       [anon_sym_SLASH_STAR]), (ACTIONS 7, 1, [anon_sym_SLASH_SLASH_SLASH]), (ACTIONS 9, 1,
       [sym__block_comment]), (ACTIONS 11, 1, [sym__documentation_block_comment]), (ACTIONS 4464,
       1, [anon_sym_native]), (ACTIONS 5130, 1, [anon_sym_COLON]), (ACTIONS 5132, 1,
       [anon_sym_async]), (STATE 2296, 2, [sym_comment, sym_documentation_comment]), (ACTIONS
       5127, 5, [anon_sym_LBRACE, anon_sym_SEMI, anon_sym_EQ_GT, anon_sym_async_STAR,
       anon_sym_sync_STAR])])]"

lemma small_run_795: "small_run 2292 118624 ts_small_parse_table_795 2297 118800"
  by (simp add: small_simps ts_small_parse_table_795_def)

definition ts_small_parse_table_796 :: "small_group list" where
  "ts_small_parse_table_796 = [
     (118800, 14, [(ACTIONS 3, 1, [anon_sym_SLASH_SLASH]), (ACTIONS 5, 1,
       [anon_sym_SLASH_STAR]), (ACTIONS 7, 1, [anon_sym_SLASH_SLASH_SLASH]), (ACTIONS 9, 1,
       [sym__block_comment]), (ACTIONS 11, 1, [sym__documentation_block_comment]), (ACTIONS 143,
       1, [anon_sym_AT]), (ACTIONS 2154, 1, [anon_sym_QMARK]), (ACTIONS 5043, 1,
       [sym_identifier]), (STATE 1308, 1, [aux_sym__metadata_repeat1]), (STATE 1361, 1,
       [sym_annotation]), (STATE 2456, 1, [sym_nullable_type]), (STATE 2778, 1,
       [sym_type_parameter]), (STATE 2779, 1, [sym__metadata]), (STATE 2297, 2, [sym_comment,
       sym_documentation_comment])]),
     (118844, 11, [(ACTIONS 3, 1, [anon_sym_SLASH_SLASH]), (ACTIONS 5, 1,
       [anon_sym_SLASH_STAR]), (ACTIONS 7, 1, [anon_sym_SLASH_SLASH_SLASH]), (ACTIONS 9, 1,
       [sym__block_comment]), (ACTIONS 11, 1, [sym__documentation_block_comment]), (ACTIONS 5029,
       1, [anon_sym_DOLLAR]), (ACTIONS 5135, 1, [anon_sym_DQUOTE]), (STATE 2281, 1,
       [aux_sym__raw_string_literal_double_quotes_repeat1]), (STATE 2448, 1,
       [sym__sub_string_test]), (STATE 2298, 2, [sym_comment, sym_documentation_comment]),
       (ACTIONS 5027, 4, [sym__template_chars_double_single, sym__template_chars_raw_slash,
       anon_sym_SQUOTE, sym__unused_escape_sequence])]),
     (118882, 13, [(ACTIONS 3, 1, [anon_sym_SLASH_SLASH]), (ACTIONS 5, 1,
       [anon_sym_SLASH_STAR]), (ACTIONS 7, 1, [anon_sym_SLASH_SLASH_SLASH]), (ACTIONS 9, 1,
       [sym__block_comment]), (ACTIONS 11, 1, [sym__documentation_block_comment]), (ACTIONS 3511,
       1, [anon_sym_LT]), (ACTIONS 4278, 1, [anon_sym_LPAREN]), (STATE 2016, 1,
       [sym__strict_formal_parameter_list]), (STATE 2020, 1, [sym_formal_parameter_list]), (STATE
       2288, 1, [sym__formal_parameter_part]), (STATE 2932, 1, [sym_type_parameters]), (ACTIONS
       5137, 2, [anon_sym_RBRACE, anon_sym_COMMA]), (STATE 2299, 2, [sym_comment,
       sym_documentation_comment])]),
     (118924, 11, [(ACTIONS 3, 1, [anon_sym_SLASH_SLASH]), (ACTIONS 5, 1,
       [anon_sym_SLASH_STAR]), (ACTIONS 7, 1, [anon_sym_SLASH_SLASH_SLASH]), (ACTIONS 9, 1,
       [sym__block_comment]), (ACTIONS 11, 1, [sym__documentation_block_comment]), (ACTIONS 5125,
       1, [anon_sym_DOLLAR]), (ACTIONS 5139, 1, [anon_sym_SQUOTE]), (STATE 2280, 1,
       [aux_sym__raw_string_literal_single_quotes_repeat1]), (STATE 2439, 1,
       [sym__sub_string_test]), (STATE 2300, 2, [sym_comment, sym_documentation_comment]),
       (ACTIONS 5121, 4, [sym__template_chars_single_single, sym__template_chars_raw_slash,
       anon_sym_DQUOTE, sym__unused_escape_sequence])]),
     (118962, 11, [(ACTIONS 3, 1, [anon_sym_SLASH_SLASH]), (ACTIONS 5, 1,
       [anon_sym_SLASH_STAR]), (ACTIONS 7, 1, [anon_sym_SLASH_SLASH_SLASH]), (ACTIONS 9, 1,
       [sym__block_comment]), (ACTIONS 11, 1, [sym__documentation_block_comment]), (ACTIONS 5125,
       1, [anon_sym_DOLLAR]), (ACTIONS 5141, 1, [anon_sym_SQUOTE]), (STATE 2326, 1,
       [aux_sym__raw_string_literal_single_quotes_repeat1]), (STATE 2439, 1,
       [sym__sub_string_test]), (STATE 2301, 2, [sym_comment, sym_documentation_comment]),
       (ACTIONS 5121, 4, [sym__template_chars_single_single, sym__template_chars_raw_slash,
       anon_sym_DQUOTE, sym__unused_escape_sequence])])]"

lemma small_run_796: "small_run 2297 118800 ts_small_parse_table_796 2302 119000"
  by (simp add: small_simps ts_small_parse_table_796_def)

definition ts_small_parse_table_797 :: "small_group list" where
  "ts_small_parse_table_797 = [
     (119000, 10, [(ACTIONS 3, 1, [anon_sym_SLASH_SLASH]), (ACTIONS 5, 1,
       [anon_sym_SLASH_STAR]), (ACTIONS 7, 1, [anon_sym_SLASH_SLASH_SLASH]), (ACTIONS 9, 1,
       [sym__block_comment]), (ACTIONS 11, 1, [sym__documentation_block_comment]), (ACTIONS 5041,
       1, [anon_sym_native]), (ACTIONS 5145, 1, [anon_sym_async]), (STATE 2520, 1,
       [sym__native]), (STATE 2302, 2, [sym_comment, sym_documentation_comment]), (ACTIONS 5143,
       5, [anon_sym_LBRACE, anon_sym_SEMI, anon_sym_EQ_GT, anon_sym_async_STAR,
       anon_sym_sync_STAR])]),
     (119036, 10, [(ACTIONS 3, 1, [anon_sym_SLASH_SLASH]), (ACTIONS 5, 1,
       [anon_sym_SLASH_STAR]), (ACTIONS 7, 1, [anon_sym_SLASH_SLASH_SLASH]), (ACTIONS 9, 1,
       [sym__block_comment]), (ACTIONS 11, 1, [sym__documentation_block_comment]), (ACTIONS 5033,
       1, [anon_sym_COMMA]), (ACTIONS 5149, 1, [anon_sym_async]), (STATE 2264, 1,
       [aux_sym_initializers_repeat1]), (STATE 2303, 2, [sym_comment,
       sym_documentation_comment]), (ACTIONS 5147, 5, [anon_sym_LBRACE, anon_sym_SEMI,
       anon_sym_EQ_GT, anon_sym_async_STAR, anon_sym_sync_STAR])]),
     (119072, 11, [(ACTIONS 3, 1, [anon_sym_SLASH_SLASH]), (ACTIONS 5, 1,
       [anon_sym_SLASH_STAR]), (ACTIONS 7, 1, [anon_sym_SLASH_SLASH_SLASH]), (ACTIONS 9, 1,
       [sym__block_comment]), (ACTIONS 11, 1, [sym__documentation_block_comment]), (ACTIONS 5125,
       1, [anon_sym_DOLLAR]), (ACTIONS 5151, 1, [anon_sym_SQUOTE]), (STATE 2295, 1,
       [aux_sym__raw_string_literal_single_quotes_repeat1]), (STATE 2439, 1,
       [sym__sub_string_test]), (STATE 2304, 2, [sym_comment, sym_documentation_comment]),
       (ACTIONS 5121, 4, [sym__template_chars_single_single, sym__template_chars_raw_slash,
       anon_sym_DQUOTE, sym__unused_escape_sequence])]),
     (119110, 10, [(ACTIONS 3, 1, [anon_sym_SLASH_SLASH]), (ACTIONS 5, 1,
       [anon_sym_SLASH_STAR]), (ACTIONS 7, 1, [anon_sym_SLASH_SLASH_SLASH]), (ACTIONS 9, 1,
       [sym__block_comment]), (ACTIONS 11, 1, [sym__documentation_block_comment]), (ACTIONS 5041,
       1, [anon_sym_native]), (ACTIONS 5155, 1, [anon_sym_async]), (STATE 2516, 1,
       [sym__native]), (STATE 2305, 2, [sym_comment, sym_documentation_comment]), (ACTIONS 5153,
       5, [anon_sym_LBRACE, anon_sym_SEMI, anon_sym_EQ_GT, anon_sym_async_STAR,
       anon_sym_sync_STAR])]),
     (119146, 11, [(ACTIONS 3, 1, [anon_sym_SLASH_SLASH]), (ACTIONS 5, 1,
       [anon_sym_SLASH_STAR]), (ACTIONS 7, 1, [anon_sym_SLASH_SLASH_SLASH]), (ACTIONS 9, 1,
       [sym__block_comment]), (ACTIONS 11, 1, [sym__documentation_block_comment]), (ACTIONS 5029,
       1, [anon_sym_DOLLAR]), (ACTIONS 5157, 1, [anon_sym_DQUOTE]), (STATE 2298, 1,
       [aux_sym__raw_string_literal_double_quotes_repeat1]), (STATE 2448, 1,
       [sym__sub_string_test]), (STATE 2306, 2, [sym_comment, sym_documentation_comment]),
       (ACTIONS 5027, 4, [sym__template_chars_double_single, sym__template_chars_raw_slash,
       anon_sym_SQUOTE, sym__unused_escape_sequence])])]"

lemma small_run_797: "small_run 2302 119000 ts_small_parse_table_797 2307 119184"
  by (simp add: small_simps ts_small_parse_table_797_def)

definition ts_small_parse_table_798 :: "small_group list" where
  "ts_small_parse_table_798 = [
     (119184, 9, [(ACTIONS 3, 1, [anon_sym_SLASH_SLASH]), (ACTIONS 9, 1, [sym__block_comment]),
       (ACTIONS 11, 1, [sym__documentation_block_comment]), (ACTIONS 5161, 1,
       [aux_sym__sub_string_test_token1]), (ACTIONS 5165, 1, [anon_sym_SLASH_STAR]), (ACTIONS
       5167, 1, [anon_sym_SLASH_SLASH_SLASH]), (STATE 2307, 2, [sym_comment,
       sym_documentation_comment]), (ACTIONS 5163, 3, [sym__template_chars_double,
       sym__template_chars_raw_slash, sym__unused_escape_sequence]), (ACTIONS 5159, 4,
       [anon_sym_DQUOTE, anon_sym_SQUOTE, anon_sym_DQUOTE_DQUOTE_DQUOTE, anon_sym_DOLLAR])]),
     (119218, 7, [(ACTIONS 3, 1, [anon_sym_SLASH_SLASH]), (ACTIONS 5, 1,
       [anon_sym_SLASH_STAR]), (ACTIONS 7, 1, [anon_sym_SLASH_SLASH_SLASH]), (ACTIONS 9, 1,
       [sym__block_comment]), (ACTIONS 11, 1, [sym__documentation_block_comment]), (STATE 2308,
       2, [sym_comment, sym_documentation_comment]), (ACTIONS 4712, 8, [anon_sym_RBRACE,
       anon_sym_COMMA, anon_sym_RBRACK, anon_sym_COLON, anon_sym_RPAREN, anon_sym_EQ_GT,
       anon_sym_when, anon_sym_PIPE_PIPE])]),
     (119248, 14, [(ACTIONS 3, 1, [anon_sym_SLASH_SLASH]), (ACTIONS 5, 1,
       [anon_sym_SLASH_STAR]), (ACTIONS 7, 1, [anon_sym_SLASH_SLASH_SLASH]), (ACTIONS 9, 1,
       [sym__block_comment]), (ACTIONS 11, 1, [sym__documentation_block_comment]), (ACTIONS 3511,
       1, [anon_sym_LT]), (ACTIONS 4578, 1, [anon_sym_LBRACE]), (ACTIONS 4586, 1,
       [anon_sym_implements]), (ACTIONS 5169, 1, [anon_sym_on]), (STATE 1768, 1,
       [sym_class_body]), (STATE 2023, 1, [sym__implements]), (STATE 2482, 1,
       [sym_type_parameters]), (STATE 3075, 1, [sym_interfaces]), (STATE 2309, 2, [sym_comment,
       sym_documentation_comment])]),
     (119292, 9, [(ACTIONS 3, 1, [anon_sym_SLASH_SLASH]), (ACTIONS 5, 1,
       [anon_sym_SLASH_STAR]), (ACTIONS 7, 1, [anon_sym_SLASH_SLASH_SLASH]), (ACTIONS 9, 1,
       [sym__block_comment]), (ACTIONS 11, 1, [sym__documentation_block_comment]), (ACTIONS 2154,
       1, [anon_sym_QMARK]), (STATE 2523, 1, [sym_nullable_type]), (STATE 2310, 2, [sym_comment,
       sym_documentation_comment]), (ACTIONS 5171, 6, [anon_sym_RBRACE, anon_sym_COMMA,
       anon_sym_RBRACK, anon_sym_COLON, anon_sym_RPAREN, anon_sym_EQ])]),
     (119326, 10, [(ACTIONS 3, 1, [anon_sym_SLASH_SLASH]), (ACTIONS 5, 1,
       [anon_sym_SLASH_STAR]), (ACTIONS 7, 1, [anon_sym_SLASH_SLASH_SLASH]), (ACTIONS 9, 1,
       [sym__block_comment]), (ACTIONS 11, 1, [sym__documentation_block_comment]), (ACTIONS 5041,
       1, [anon_sym_native]), (ACTIONS 5175, 1, [anon_sym_async]), (STATE 2492, 1,
       [sym__native]), (STATE 2311, 2, [sym_comment, sym_documentation_comment]), (ACTIONS 5173,
       5, [anon_sym_LBRACE, anon_sym_SEMI, anon_sym_EQ_GT, anon_sym_async_STAR,
       anon_sym_sync_STAR])])]"

lemma small_run_798: "small_run 2307 119184 ts_small_parse_table_798 2312 119362"
  by (simp add: small_simps ts_small_parse_table_798_def)

definition ts_small_parse_table_799 :: "small_group list" where
  "ts_small_parse_table_799 = [
     (119362, 14, [(ACTIONS 3, 1, [anon_sym_SLASH_SLASH]), (ACTIONS 5, 1,
       [anon_sym_SLASH_STAR]), (ACTIONS 7, 1, [anon_sym_SLASH_SLASH_SLASH]), (ACTIONS 9, 1,
       [sym__block_comment]), (ACTIONS 11, 1, [sym__documentation_block_comment]), (ACTIONS 3511,
       1, [anon_sym_LT]), (ACTIONS 4578, 1, [anon_sym_LBRACE]), (ACTIONS 4586, 1,
       [anon_sym_implements]), (ACTIONS 5177, 1, [anon_sym_on]), (STATE 1793, 1,
       [sym_class_body]), (STATE 2023, 1, [sym__implements]), (STATE 2452, 1,
       [sym_type_parameters]), (STATE 3185, 1, [sym_interfaces]), (STATE 2312, 2, [sym_comment,
       sym_documentation_comment])]),
     (119406, 11, [(ACTIONS 3, 1, [anon_sym_SLASH_SLASH]), (ACTIONS 5, 1,
       [anon_sym_SLASH_STAR]), (ACTIONS 7, 1, [anon_sym_SLASH_SLASH_SLASH]), (ACTIONS 9, 1,
       [sym__block_comment]), (ACTIONS 11, 1, [sym__documentation_block_comment]), (ACTIONS 5029,
       1, [anon_sym_DOLLAR]), (ACTIONS 5179, 1, [anon_sym_DQUOTE]), (STATE 2281, 1,
       [aux_sym__raw_string_literal_double_quotes_repeat1]), (STATE 2448, 1,
       [sym__sub_string_test]), (STATE 2313, 2, [sym_comment, sym_documentation_comment]),
       (ACTIONS 5027, 4, [sym__template_chars_double_single, sym__template_chars_raw_slash,
       anon_sym_SQUOTE, sym__unused_escape_sequence])]),
     (119444, 11, [(ACTIONS 3, 1, [anon_sym_SLASH_SLASH]), (ACTIONS 5, 1,
       [anon_sym_SLASH_STAR]), (ACTIONS 7, 1, [anon_sym_SLASH_SLASH_SLASH]), (ACTIONS 9, 1,
       [sym__block_comment]), (ACTIONS 11, 1, [sym__documentation_block_comment]), (ACTIONS 5125,
       1, [anon_sym_DOLLAR]), (ACTIONS 5181, 1, [anon_sym_SQUOTE]), (STATE 2280, 1,
       [aux_sym__raw_string_literal_single_quotes_repeat1]), (STATE 2439, 1,
       [sym__sub_string_test]), (STATE 2314, 2, [sym_comment, sym_documentation_comment]),
       (ACTIONS 5121, 4, [sym__template_chars_single_single, sym__template_chars_raw_slash,
       anon_sym_DQUOTE, sym__unused_escape_sequence])]),
     (119482, 10, [(ACTIONS 3, 1, [anon_sym_SLASH_SLASH]), (ACTIONS 5, 1,
       [anon_sym_SLASH_STAR]), (ACTIONS 7, 1, [anon_sym_SLASH_SLASH_SLASH]), (ACTIONS 9, 1,
       [sym__block_comment]), (ACTIONS 11, 1, [sym__documentation_block_comment]), (ACTIONS 2706,
       1, [anon_sym_QMARK]), (ACTIONS 3398, 1, [anon_sym_LPAREN]), (STATE 2435, 1,
       [sym_arguments]), (STATE 2315, 2, [sym_comment, sym_documentation_comment]), (ACTIONS
       2704, 5, [anon_sym_LBRACK, anon_sym_LT, anon_sym_BANG, anon_sym_DOT,
       anon_sym_QMARK_DOT])]),
     (119518, 11, [(ACTIONS 3, 1, [anon_sym_SLASH_SLASH]), (ACTIONS 5, 1,
       [anon_sym_SLASH_STAR]), (ACTIONS 7, 1, [anon_sym_SLASH_SLASH_SLASH]), (ACTIONS 9, 1,
       [sym__block_comment]), (ACTIONS 11, 1, [sym__documentation_block_comment]), (ACTIONS 5029,
       1, [anon_sym_DOLLAR]), (ACTIONS 5183, 1, [anon_sym_DQUOTE]), (STATE 2281, 1,
       [aux_sym__raw_string_literal_double_quotes_repeat1]), (STATE 2448, 1,
       [sym__sub_string_test]), (STATE 2316, 2, [sym_comment, sym_documentation_comment]),
       (ACTIONS 5027, 4, [sym__template_chars_double_single, sym__template_chars_raw_slash,
       anon_sym_SQUOTE, sym__unused_escape_sequence])])]"

lemma small_run_799: "small_run 2312 119362 ts_small_parse_table_799 2317 119556"
  by (simp add: small_simps ts_small_parse_table_799_def)

definition ts_small_parse_table_800 :: "small_group list" where
  "ts_small_parse_table_800 = [
     (119556, 11, [(ACTIONS 3, 1, [anon_sym_SLASH_SLASH]), (ACTIONS 5, 1,
       [anon_sym_SLASH_STAR]), (ACTIONS 7, 1, [anon_sym_SLASH_SLASH_SLASH]), (ACTIONS 9, 1,
       [sym__block_comment]), (ACTIONS 11, 1, [sym__documentation_block_comment]), (ACTIONS 5125,
       1, [anon_sym_DOLLAR]), (ACTIONS 5185, 1, [anon_sym_SQUOTE]), (STATE 2280, 1,
       [aux_sym__raw_string_literal_single_quotes_repeat1]), (STATE 2439, 1,
       [sym__sub_string_test]), (STATE 2317, 2, [sym_comment, sym_documentation_comment]),
       (ACTIONS 5121, 4, [sym__template_chars_single_single, sym__template_chars_raw_slash,
       anon_sym_DQUOTE, sym__unused_escape_sequence])]),
     (119594, 11, [(ACTIONS 3, 1, [anon_sym_SLASH_SLASH]), (ACTIONS 5, 1,
       [anon_sym_SLASH_STAR]), (ACTIONS 7, 1, [anon_sym_SLASH_SLASH_SLASH]), (ACTIONS 9, 1,
       [sym__block_comment]), (ACTIONS 11, 1, [sym__documentation_block_comment]), (ACTIONS 5029,
       1, [anon_sym_DOLLAR]), (ACTIONS 5187, 1, [anon_sym_DQUOTE]), (STATE 2313, 1,
       [aux_sym__raw_string_literal_double_quotes_repeat1]), (STATE 2448, 1,
       [sym__sub_string_test]), (STATE 2318, 2, [sym_comment, sym_documentation_comment]),
       (ACTIONS 5027, 4, [sym__template_chars_double_single, sym__template_chars_raw_slash,
       anon_sym_SQUOTE, sym__unused_escape_sequence])]),
     (119632, 11, [(ACTIONS 3, 1, [anon_sym_SLASH_SLASH]), (ACTIONS 5, 1,
       [anon_sym_SLASH_STAR]), (ACTIONS 7, 1, [anon_sym_SLASH_SLASH_SLASH]), (ACTIONS 9, 1,
       [sym__block_comment]), (ACTIONS 11, 1, [sym__documentation_block_comment]), (ACTIONS 5125,
       1, [anon_sym_DOLLAR]), (ACTIONS 5189, 1, [anon_sym_SQUOTE]), (STATE 2314, 1,
       [aux_sym__raw_string_literal_single_quotes_repeat1]), (STATE 2439, 1,
       [sym__sub_string_test]), (STATE 2319, 2, [sym_comment, sym_documentation_comment]),
       (ACTIONS 5121, 4, [sym__template_chars_single_single, sym__template_chars_raw_slash,
       anon_sym_DQUOTE, sym__unused_escape_sequence])]),
     (119670, 13, [(ACTIONS 3, 1, [anon_sym_SLASH_SLASH]), (ACTIONS 5, 1,
       [anon_sym_SLASH_STAR]), (ACTIONS 7, 1, [anon_sym_SLASH_SLASH_SLASH]), (ACTIONS 9, 1,
       [sym__block_comment]), (ACTIONS 11, 1, [sym__documentation_block_comment]), (ACTIONS 5191,
       1, [anon_sym_as]), (ACTIONS 5193, 1, [anon_sym_SEMI]), (STATE 1564, 1, [sym__semicolon]),
       (STATE 2490, 1, [aux_sym_library_export_repeat1]), (STATE 2733, 1, [sym_combinator]),
       (STATE 3486, 1, [sym__as]), (ACTIONS 5195, 2, [anon_sym_show, anon_sym_hide]), (STATE
       2320, 2, [sym_comment, sym_documentation_comment])]),
     (119712, 8, [(ACTIONS 3, 1, [anon_sym_SLASH_SLASH]), (ACTIONS 5, 1,
       [anon_sym_SLASH_STAR]), (ACTIONS 7, 1, [anon_sym_SLASH_SLASH_SLASH]), (ACTIONS 9, 1,
       [sym__block_comment]), (ACTIONS 11, 1, [sym__documentation_block_comment]), (ACTIONS 5200,
       1, [anon_sym_in]), (STATE 2321, 2, [sym_comment, sym_documentation_comment]), (ACTIONS
       5197, 7, [anon_sym_RBRACE, anon_sym_COMMA, anon_sym_RBRACK, anon_sym_COLON,
       anon_sym_RPAREN, anon_sym_EQ, anon_sym_SEMI])])]"

lemma small_run_800: "small_run 2317 119556 ts_small_parse_table_800 2322 119744"
  by (simp add: small_simps ts_small_parse_table_800_def)

definition ts_small_parse_table_801 :: "small_group list" where
  "ts_small_parse_table_801 = [
     (119744, 11, [(ACTIONS 3, 1, [anon_sym_SLASH_SLASH]), (ACTIONS 5, 1,
       [anon_sym_SLASH_STAR]), (ACTIONS 7, 1, [anon_sym_SLASH_SLASH_SLASH]), (ACTIONS 9, 1,
       [sym__block_comment]), (ACTIONS 11, 1, [sym__documentation_block_comment]), (ACTIONS 5029,
       1, [anon_sym_DOLLAR]), (ACTIONS 5202, 1, [anon_sym_DQUOTE]), (STATE 2290, 1,
       [aux_sym__raw_string_literal_double_quotes_repeat1]), (STATE 2448, 1,
       [sym__sub_string_test]), (STATE 2322, 2, [sym_comment, sym_documentation_comment]),
       (ACTIONS 5027, 4, [sym__template_chars_double_single, sym__template_chars_raw_slash,
       anon_sym_SQUOTE, sym__unused_escape_sequence])]),
     (119782, 9, [(ACTIONS 3, 1, [anon_sym_SLASH_SLASH]), (ACTIONS 9, 1, [sym__block_comment]),
       (ACTIONS 11, 1, [sym__documentation_block_comment]), (ACTIONS 5165, 1,
       [anon_sym_SLASH_STAR]), (ACTIONS 5167, 1, [anon_sym_SLASH_SLASH_SLASH]), (ACTIONS 5206, 1,
       [aux_sym__sub_string_test_token1]), (STATE 2323, 2, [sym_comment,
       sym_documentation_comment]), (ACTIONS 5208, 3, [sym__template_chars_single,
       sym__template_chars_raw_slash, sym__unused_escape_sequence]), (ACTIONS 5204, 4,
       [anon_sym_DQUOTE, anon_sym_SQUOTE, anon_sym_SQUOTE_SQUOTE_SQUOTE, anon_sym_DOLLAR])]),
     (119816, 11, [(ACTIONS 3, 1, [anon_sym_SLASH_SLASH]), (ACTIONS 5, 1,
       [anon_sym_SLASH_STAR]), (ACTIONS 7, 1, [anon_sym_SLASH_SLASH_SLASH]), (ACTIONS 9, 1,
       [sym__block_comment]), (ACTIONS 11, 1, [sym__documentation_block_comment]), (ACTIONS 5029,
       1, [anon_sym_DOLLAR]), (ACTIONS 5210, 1, [anon_sym_DQUOTE]), (STATE 2316, 1,
       [aux_sym__raw_string_literal_double_quotes_repeat1]), (STATE 2448, 1,
       [sym__sub_string_test]), (STATE 2324, 2, [sym_comment, sym_documentation_comment]),
       (ACTIONS 5027, 4, [sym__template_chars_double_single, sym__template_chars_raw_slash,
       anon_sym_SQUOTE, sym__unused_escape_sequence])]),
     (119854, 10, [(ACTIONS 3, 1, [anon_sym_SLASH_SLASH]), (ACTIONS 5, 1,
       [anon_sym_SLASH_STAR]), (ACTIONS 7, 1, [anon_sym_SLASH_SLASH_SLASH]), (ACTIONS 9, 1,
       [sym__block_comment]), (ACTIONS 11, 1, [sym__documentation_block_comment]), (ACTIONS 5041,
       1, [anon_sym_native]), (ACTIONS 5214, 1, [anon_sym_async]), (STATE 2459, 1,
       [sym__native]), (STATE 2325, 2, [sym_comment, sym_documentation_comment]), (ACTIONS 5212,
       5, [anon_sym_LBRACE, anon_sym_SEMI, anon_sym_EQ_GT, anon_sym_async_STAR,
       anon_sym_sync_STAR])]),
     (119890, 11, [(ACTIONS 3, 1, [anon_sym_SLASH_SLASH]), (ACTIONS 5, 1,
       [anon_sym_SLASH_STAR]), (ACTIONS 7, 1, [anon_sym_SLASH_SLASH_SLASH]), (ACTIONS 9, 1,
       [sym__block_comment]), (ACTIONS 11, 1, [sym__documentation_block_comment]), (ACTIONS 5125,
       1, [anon_sym_DOLLAR]), (ACTIONS 5216, 1, [anon_sym_SQUOTE]), (STATE 2280, 1,
       [aux_sym__raw_string_literal_single_quotes_repeat1]), (STATE 2439, 1,
       [sym__sub_string_test]), (STATE 2326, 2, [sym_comment, sym_documentation_comment]),
       (ACTIONS 5121, 4, [sym__template_chars_single_single, sym__template_chars_raw_slash,
       anon_sym_DQUOTE, sym__unused_escape_sequence])])]"

lemma small_run_801: "small_run 2322 119744 ts_small_parse_table_801 2327 119928"
  by (simp add: small_simps ts_small_parse_table_801_def)

definition ts_small_parse_table_802 :: "small_group list" where
  "ts_small_parse_table_802 = [
     (119928, 14, [(ACTIONS 3, 1, [anon_sym_SLASH_SLASH]), (ACTIONS 5, 1,
       [anon_sym_SLASH_STAR]), (ACTIONS 7, 1, [anon_sym_SLASH_SLASH_SLASH]), (ACTIONS 9, 1,
       [sym__block_comment]), (ACTIONS 11, 1, [sym__documentation_block_comment]), (ACTIONS 3511,
       1, [anon_sym_LT]), (ACTIONS 4578, 1, [anon_sym_LBRACE]), (ACTIONS 4586, 1,
       [anon_sym_implements]), (ACTIONS 5218, 1, [anon_sym_on]), (STATE 1770, 1,
       [sym_class_body]), (STATE 2023, 1, [sym__implements]), (STATE 2489, 1,
       [sym_type_parameters]), (STATE 3078, 1, [sym_interfaces]), (STATE 2327, 2, [sym_comment,
       sym_documentation_comment])]),
     (119972, 11, [(ACTIONS 3, 1, [anon_sym_SLASH_SLASH]), (ACTIONS 5, 1,
       [anon_sym_SLASH_STAR]), (ACTIONS 7, 1, [anon_sym_SLASH_SLASH_SLASH]), (ACTIONS 9, 1,
       [sym__block_comment]), (ACTIONS 11, 1, [sym__documentation_block_comment]), (ACTIONS 5125,
       1, [anon_sym_DOLLAR]), (ACTIONS 5220, 1, [anon_sym_SQUOTE]), (STATE 2317, 1,
       [aux_sym__raw_string_literal_single_quotes_repeat1]), (STATE 2439, 1,
       [sym__sub_string_test]), (STATE 2328, 2, [sym_comment, sym_documentation_comment]),
       (ACTIONS 5121, 4, [sym__template_chars_single_single, sym__template_chars_raw_slash,
       anon_sym_DQUOTE, sym__unused_escape_sequence])]),
     (120010, 10, [(ACTIONS 3, 1, [anon_sym_SLASH_SLASH]), (ACTIONS 5, 1,
       [anon_sym_SLASH_STAR]), (ACTIONS 7, 1, [anon_sym_SLASH_SLASH_SLASH]), (ACTIONS 9, 1,
       [sym__block_comment]), (ACTIONS 11, 1, [sym__documentation_block_comment]), (ACTIONS 5041,
       1, [anon_sym_native]), (ACTIONS 5224, 1, [anon_sym_async]), (STATE 2493, 1,
       [sym__native]), (STATE 2329, 2, [sym_comment, sym_documentation_comment]), (ACTIONS 5222,
       5, [anon_sym_LBRACE, anon_sym_SEMI, anon_sym_EQ_GT, anon_sym_async_STAR,
       anon_sym_sync_STAR])]),
     (120046, 11, [(ACTIONS 3, 1, [anon_sym_SLASH_SLASH]), (ACTIONS 5, 1,
       [anon_sym_SLASH_STAR]), (ACTIONS 7, 1, [anon_sym_SLASH_SLASH_SLASH]), (ACTIONS 9, 1,
       [sym__block_comment]), (ACTIONS 11, 1, [sym__documentation_block_comment]), (ACTIONS 5125,
       1, [anon_sym_DOLLAR]), (ACTIONS 5226, 1, [anon_sym_SQUOTE]), (STATE 2300, 1,
       [aux_sym__raw_string_literal_single_quotes_repeat1]), (STATE 2439, 1,
       [sym__sub_string_test]), (STATE 2330, 2, [sym_comment, sym_documentation_comment]),
       (ACTIONS 5121, 4, [sym__template_chars_single_single, sym__template_chars_raw_slash,
       anon_sym_DQUOTE, sym__unused_escape_sequence])]),
     (120084, 10, [(ACTIONS 3, 1, [anon_sym_SLASH_SLASH]), (ACTIONS 5, 1,
       [anon_sym_SLASH_STAR]), (ACTIONS 7, 1, [anon_sym_SLASH_SLASH_SLASH]), (ACTIONS 9, 1,
       [sym__block_comment]), (ACTIONS 11, 1, [sym__documentation_block_comment]), (ACTIONS 5041,
       1, [anon_sym_native]), (ACTIONS 5230, 1, [anon_sym_async]), (STATE 2508, 1,
       [sym__native]), (STATE 2331, 2, [sym_comment, sym_documentation_comment]), (ACTIONS 5228,
       5, [anon_sym_LBRACE, anon_sym_SEMI, anon_sym_EQ_GT, anon_sym_async_STAR,
       anon_sym_sync_STAR])])]"

lemma small_run_802: "small_run 2327 119928 ts_small_parse_table_802 2332 120120"
  by (simp add: small_simps ts_small_parse_table_802_def)

definition ts_small_parse_table_803 :: "small_group list" where
  "ts_small_parse_table_803 = [
     (120120, 8, [(ACTIONS 3, 1, [anon_sym_SLASH_SLASH]), (ACTIONS 5, 1,
       [anon_sym_SLASH_STAR]), (ACTIONS 7, 1, [anon_sym_SLASH_SLASH_SLASH]), (ACTIONS 9, 1,
       [sym__block_comment]), (ACTIONS 11, 1, [sym__documentation_block_comment]), (ACTIONS 2864,
       1, [anon_sym_QMARK]), (STATE 2332, 2, [sym_comment, sym_documentation_comment]), (ACTIONS
       2862, 6, [anon_sym_LBRACK, anon_sym_LPAREN, anon_sym_LT, anon_sym_BANG, anon_sym_DOT,
       anon_sym_QMARK_DOT])]),
     (120151, 8, [(ACTIONS 3, 1, [anon_sym_SLASH_SLASH]), (ACTIONS 5, 1,
       [anon_sym_SLASH_STAR]), (ACTIONS 7, 1, [anon_sym_SLASH_SLASH_SLASH]), (ACTIONS 9, 1,
       [sym__block_comment]), (ACTIONS 11, 1, [sym__documentation_block_comment]), (ACTIONS 5234,
       1, [anon_sym_async]), (STATE 2333, 2, [sym_comment, sym_documentation_comment]), (ACTIONS
       5232, 6, [anon_sym_LBRACE, anon_sym_COMMA, anon_sym_SEMI, anon_sym_EQ_GT,
       anon_sym_async_STAR, anon_sym_sync_STAR])]),
     (120182, 7, [(ACTIONS 3, 1, [anon_sym_SLASH_SLASH]), (ACTIONS 5, 1,
       [anon_sym_SLASH_STAR]), (ACTIONS 7, 1, [anon_sym_SLASH_SLASH_SLASH]), (ACTIONS 9, 1,
       [sym__block_comment]), (ACTIONS 11, 1, [sym__documentation_block_comment]), (STATE 2334,
       2, [sym_comment, sym_documentation_comment]), (ACTIONS 5200, 7, [anon_sym_RBRACE,
       anon_sym_COMMA, anon_sym_RBRACK, anon_sym_COLON, anon_sym_RPAREN, anon_sym_EQ,
       anon_sym_SEMI])]),
     (120211, 8, [(ACTIONS 3, 1, [anon_sym_SLASH_SLASH]), (ACTIONS 5, 1,
       [anon_sym_SLASH_STAR]), (ACTIONS 7, 1, [anon_sym_SLASH_SLASH_SLASH]), (ACTIONS 9, 1,
       [sym__block_comment]), (ACTIONS 11, 1, [sym__documentation_block_comment]), (ACTIONS 2958,
       1, [anon_sym_QMARK]), (STATE 2335, 2, [sym_comment, sym_documentation_comment]), (ACTIONS
       2956, 6, [anon_sym_LBRACK, anon_sym_LPAREN, anon_sym_LT, anon_sym_BANG, anon_sym_DOT,
       anon_sym_QMARK_DOT])]),
     (120242, 10, [(ACTIONS 3, 1, [anon_sym_SLASH_SLASH]), (ACTIONS 5, 1,
       [anon_sym_SLASH_STAR]), (ACTIONS 7, 1, [anon_sym_SLASH_SLASH_SLASH]), (ACTIONS 9, 1,
       [sym__block_comment]), (ACTIONS 11, 1, [sym__documentation_block_comment]), (ACTIONS 4977,
       1, [anon_sym_if]), (STATE 2361, 1, [aux_sym_configurable_uri_repeat1]), (STATE 2543, 1,
       [sym_configuration_uri]), (STATE 2336, 2, [sym_comment, sym_documentation_comment]),
       (ACTIONS 5236, 4, [anon_sym_as, anon_sym_SEMI, anon_sym_show, anon_sym_hide])]),
     (120277, 8, [(ACTIONS 3, 1, [anon_sym_SLASH_SLASH]), (ACTIONS 5, 1,
       [anon_sym_SLASH_STAR]), (ACTIONS 7, 1, [anon_sym_SLASH_SLASH_SLASH]), (ACTIONS 9, 1,
       [sym__block_comment]), (ACTIONS 11, 1, [sym__documentation_block_comment]), (ACTIONS 5240,
       1, [anon_sym_async]), (STATE 2337, 2, [sym_comment, sym_documentation_comment]), (ACTIONS
       5238, 6, [anon_sym_LBRACE, anon_sym_COLON, anon_sym_SEMI, anon_sym_EQ_GT,
       anon_sym_async_STAR, anon_sym_sync_STAR])])]"

lemma small_run_803: "small_run 2332 120120 ts_small_parse_table_803 2338 120308"
  by (simp add: small_simps ts_small_parse_table_803_def)

definition ts_small_parse_table_804 :: "small_group list" where
  "ts_small_parse_table_804 = [
     (120308, 8, [(ACTIONS 3, 1, [anon_sym_SLASH_SLASH]), (ACTIONS 5, 1,
       [anon_sym_SLASH_STAR]), (ACTIONS 7, 1, [anon_sym_SLASH_SLASH_SLASH]), (ACTIONS 9, 1,
       [sym__block_comment]), (ACTIONS 11, 1, [sym__documentation_block_comment]), (ACTIONS 2994,
       1, [anon_sym_QMARK]), (STATE 2338, 2, [sym_comment, sym_documentation_comment]), (ACTIONS
       2992, 6, [anon_sym_LBRACK, anon_sym_LPAREN, anon_sym_LT, anon_sym_BANG, anon_sym_DOT,
       anon_sym_QMARK_DOT])]),
     (120339, 12, [(ACTIONS 3, 1, [anon_sym_SLASH_SLASH]), (ACTIONS 5, 1,
       [anon_sym_SLASH_STAR]), (ACTIONS 7, 1, [anon_sym_SLASH_SLASH_SLASH]), (ACTIONS 9, 1,
       [sym__block_comment]), (ACTIONS 11, 1, [sym__documentation_block_comment]), (ACTIONS 5242,
       1, [anon_sym_LBRACE]), (ACTIONS 5244, 1, [anon_sym_EQ_GT]), (ACTIONS 5246, 1,
       [anon_sym_async]), (STATE 966, 1, [sym_function_expression_body]), (STATE 974, 1,
       [sym_block]), (ACTIONS 5248, 2, [anon_sym_async_STAR, anon_sym_sync_STAR]), (STATE 2339,
       2, [sym_comment, sym_documentation_comment])]),
     (120378, 8, [(ACTIONS 3, 1, [anon_sym_SLASH_SLASH]), (ACTIONS 5, 1,
       [anon_sym_SLASH_STAR]), (ACTIONS 7, 1, [anon_sym_SLASH_SLASH_SLASH]), (ACTIONS 9, 1,
       [sym__block_comment]), (ACTIONS 11, 1, [sym__documentation_block_comment]), (ACTIONS 2661,
       1, [anon_sym_QMARK]), (STATE 2340, 2, [sym_comment, sym_documentation_comment]), (ACTIONS
       2657, 6, [anon_sym_LBRACK, anon_sym_LPAREN, anon_sym_LT, anon_sym_BANG, anon_sym_DOT,
       anon_sym_QMARK_DOT])]),
     (120409, 8, [(ACTIONS 3, 1, [anon_sym_SLASH_SLASH]), (ACTIONS 5, 1,
       [anon_sym_SLASH_STAR]), (ACTIONS 7, 1, [anon_sym_SLASH_SLASH_SLASH]), (ACTIONS 9, 1,
       [sym__block_comment]), (ACTIONS 11, 1, [sym__documentation_block_comment]), (ACTIONS 2676,
       1, [anon_sym_QMARK]), (STATE 2341, 2, [sym_comment, sym_documentation_comment]), (ACTIONS
       2672, 6, [anon_sym_LBRACK, anon_sym_LPAREN, anon_sym_LT, anon_sym_BANG, anon_sym_DOT,
       anon_sym_QMARK_DOT])]),
     (120440, 12, [(ACTIONS 3, 1, [anon_sym_SLASH_SLASH]), (ACTIONS 5, 1,
       [anon_sym_SLASH_STAR]), (ACTIONS 7, 1, [anon_sym_SLASH_SLASH_SLASH]), (ACTIONS 9, 1,
       [sym__block_comment]), (ACTIONS 11, 1, [sym__documentation_block_comment]), (ACTIONS 5250,
       1, [anon_sym_LBRACE]), (ACTIONS 5252, 1, [anon_sym_EQ_GT]), (ACTIONS 5254, 1,
       [anon_sym_async]), (STATE 1248, 1, [sym_function_expression_body]), (STATE 1250, 1,
       [sym_block]), (ACTIONS 5256, 2, [anon_sym_async_STAR, anon_sym_sync_STAR]), (STATE 2342,
       2, [sym_comment, sym_documentation_comment])])]"

lemma small_run_804: "small_run 2338 120308 ts_small_parse_table_804 2343 120479"
  by (simp add: small_simps ts_small_parse_table_804_def)

definition ts_small_parse_table_805 :: "small_group list" where
  "ts_small_parse_table_805 = [
     (120479, 13, [(ACTIONS 3, 1, [anon_sym_SLASH_SLASH]), (ACTIONS 5, 1,
       [anon_sym_SLASH_STAR]), (ACTIONS 7, 1, [anon_sym_SLASH_SLASH_SLASH]), (ACTIONS 9, 1,
       [sym__block_comment]), (ACTIONS 11, 1, [sym__documentation_block_comment]), (ACTIONS 3511,
       1, [anon_sym_LT]), (ACTIONS 4278, 1, [anon_sym_LPAREN]), (ACTIONS 5258, 1,
       [sym_identifier]), (STATE 2016, 1, [sym__strict_formal_parameter_list]), (STATE 2020, 1,
       [sym_formal_parameter_list]), (STATE 2675, 1, [sym__formal_parameter_part]), (STATE 2932,
       1, [sym_type_parameters]), (STATE 2343, 2, [sym_comment, sym_documentation_comment])]),
     (120520, 13, [(ACTIONS 3, 1, [anon_sym_SLASH_SLASH]), (ACTIONS 5, 1,
       [anon_sym_SLASH_STAR]), (ACTIONS 7, 1, [anon_sym_SLASH_SLASH_SLASH]), (ACTIONS 9, 1,
       [sym__block_comment]), (ACTIONS 11, 1, [sym__documentation_block_comment]), (ACTIONS 3511,
       1, [anon_sym_LT]), (ACTIONS 4278, 1, [anon_sym_LPAREN]), (ACTIONS 5260, 1,
       [sym_identifier]), (STATE 2016, 1, [sym__strict_formal_parameter_list]), (STATE 2020, 1,
       [sym_formal_parameter_list]), (STATE 2675, 1, [sym__formal_parameter_part]), (STATE 2932,
       1, [sym_type_parameters]), (STATE 2344, 2, [sym_comment, sym_documentation_comment])]),
     (120561, 8, [(ACTIONS 3, 1, [anon_sym_SLASH_SLASH]), (ACTIONS 5, 1,
       [anon_sym_SLASH_STAR]), (ACTIONS 7, 1, [anon_sym_SLASH_SLASH_SLASH]), (ACTIONS 9, 1,
       [sym__block_comment]), (ACTIONS 11, 1, [sym__documentation_block_comment]), (ACTIONS 2850,
       1, [anon_sym_QMARK]), (STATE 2345, 2, [sym_comment, sym_documentation_comment]), (ACTIONS
       2848, 6, [anon_sym_LBRACK, anon_sym_LPAREN, anon_sym_LT, anon_sym_BANG, anon_sym_DOT,
       anon_sym_QMARK_DOT])]),
     (120592, 8, [(ACTIONS 3, 1, [anon_sym_SLASH_SLASH]), (ACTIONS 5, 1,
       [anon_sym_SLASH_STAR]), (ACTIONS 7, 1, [anon_sym_SLASH_SLASH_SLASH]), (ACTIONS 9, 1,
       [sym__block_comment]), (ACTIONS 11, 1, [sym__documentation_block_comment]), (ACTIONS 2854,
       1, [anon_sym_QMARK]), (STATE 2346, 2, [sym_comment, sym_documentation_comment]), (ACTIONS
       2852, 6, [anon_sym_LBRACK, anon_sym_LPAREN, anon_sym_LT, anon_sym_BANG, anon_sym_DOT,
       anon_sym_QMARK_DOT])]),
     (120623, 8, [(ACTIONS 3, 1, [anon_sym_SLASH_SLASH]), (ACTIONS 5, 1,
       [anon_sym_SLASH_STAR]), (ACTIONS 7, 1, [anon_sym_SLASH_SLASH_SLASH]), (ACTIONS 9, 1,
       [sym__block_comment]), (ACTIONS 11, 1, [sym__documentation_block_comment]), (ACTIONS 5264,
       1, [anon_sym_async]), (STATE 2347, 2, [sym_comment, sym_documentation_comment]), (ACTIONS
       5262, 6, [anon_sym_LBRACE, anon_sym_COMMA, anon_sym_SEMI, anon_sym_EQ_GT,
       anon_sym_async_STAR, anon_sym_sync_STAR])]),
     (120654, 8, [(ACTIONS 3, 1, [anon_sym_SLASH_SLASH]), (ACTIONS 5, 1,
       [anon_sym_SLASH_STAR]), (ACTIONS 7, 1, [anon_sym_SLASH_SLASH_SLASH]), (ACTIONS 9, 1,
       [sym__block_comment]), (ACTIONS 11, 1, [sym__documentation_block_comment]), (ACTIONS 3048,
       1, [anon_sym_QMARK]), (STATE 2348, 2, [sym_comment, sym_documentation_comment]), (ACTIONS
       3046, 6, [anon_sym_LBRACK, anon_sym_LPAREN, anon_sym_LT, anon_sym_BANG, anon_sym_DOT,
       anon_sym_QMARK_DOT])])]"

lemma small_run_805: "small_run 2343 120479 ts_small_parse_table_805 2349 120685"
  by (simp add: small_simps ts_small_parse_table_805_def)

definition ts_small_parse_table_806 :: "small_group list" where
  "ts_small_parse_table_806 = [
     (120685, 8, [(ACTIONS 3, 1, [anon_sym_SLASH_SLASH]), (ACTIONS 5, 1,
       [anon_sym_SLASH_STAR]), (ACTIONS 7, 1, [anon_sym_SLASH_SLASH_SLASH]), (ACTIONS 9, 1,
       [sym__block_comment]), (ACTIONS 11, 1, [sym__documentation_block_comment]), (ACTIONS 5268,
       1, [anon_sym_async]), (STATE 2349, 2, [sym_comment, sym_documentation_comment]), (ACTIONS
       5266, 6, [anon_sym_LBRACE, anon_sym_COMMA, anon_sym_SEMI, anon_sym_EQ_GT,
       anon_sym_async_STAR, anon_sym_sync_STAR])]),
     (120716, 8, [(ACTIONS 3, 1, [anon_sym_SLASH_SLASH]), (ACTIONS 5, 1,
       [anon_sym_SLASH_STAR]), (ACTIONS 7, 1, [anon_sym_SLASH_SLASH_SLASH]), (ACTIONS 9, 1,
       [sym__block_comment]), (ACTIONS 11, 1, [sym__documentation_block_comment]), (ACTIONS 3052,
       1, [anon_sym_QMARK]), (STATE 2350, 2, [sym_comment, sym_documentation_comment]), (ACTIONS
       3050, 6, [anon_sym_LBRACK, anon_sym_LPAREN, anon_sym_LT, anon_sym_BANG, anon_sym_DOT,
       anon_sym_QMARK_DOT])]),
     (120747, 8, [(ACTIONS 3, 1, [anon_sym_SLASH_SLASH]), (ACTIONS 5, 1,
       [anon_sym_SLASH_STAR]), (ACTIONS 7, 1, [anon_sym_SLASH_SLASH_SLASH]), (ACTIONS 9, 1,
       [sym__block_comment]), (ACTIONS 11, 1, [sym__documentation_block_comment]), (ACTIONS 3056,
       1, [anon_sym_QMARK]), (STATE 2351, 2, [sym_comment, sym_documentation_comment]), (ACTIONS
       3054, 6, [anon_sym_LBRACK, anon_sym_LPAREN, anon_sym_LT, anon_sym_BANG, anon_sym_DOT,
       anon_sym_QMARK_DOT])]),
     (120778, 9, [(ACTIONS 3, 1, [anon_sym_SLASH_SLASH]), (ACTIONS 5, 1,
       [anon_sym_SLASH_STAR]), (ACTIONS 7, 1, [anon_sym_SLASH_SLASH_SLASH]), (ACTIONS 9, 1,
       [sym__block_comment]), (ACTIONS 11, 1, [sym__documentation_block_comment]), (ACTIONS 5272,
       1, [anon_sym_EQ]), (ACTIONS 5274, 1, [anon_sym_async]), (STATE 2352, 2, [sym_comment,
       sym_documentation_comment]), (ACTIONS 5270, 5, [anon_sym_LBRACE, anon_sym_EQ_GT,
       anon_sym_async_STAR, anon_sym_sync_STAR, anon_sym_native])]),
     (120811, 8, [(ACTIONS 3, 1, [anon_sym_SLASH_SLASH]), (ACTIONS 5, 1,
       [anon_sym_SLASH_STAR]), (ACTIONS 7, 1, [anon_sym_SLASH_SLASH_SLASH]), (ACTIONS 9, 1,
       [sym__block_comment]), (ACTIONS 11, 1, [sym__documentation_block_comment]), (ACTIONS 3092,
       1, [anon_sym_QMARK]), (STATE 2353, 2, [sym_comment, sym_documentation_comment]), (ACTIONS
       3090, 6, [anon_sym_LBRACK, anon_sym_LPAREN, anon_sym_LT, anon_sym_BANG, anon_sym_DOT,
       anon_sym_QMARK_DOT])]),
     (120842, 8, [(ACTIONS 3, 1, [anon_sym_SLASH_SLASH]), (ACTIONS 5, 1,
       [anon_sym_SLASH_STAR]), (ACTIONS 7, 1, [anon_sym_SLASH_SLASH_SLASH]), (ACTIONS 9, 1,
       [sym__block_comment]), (ACTIONS 11, 1, [sym__documentation_block_comment]), (ACTIONS 5278,
       1, [anon_sym_async]), (STATE 2354, 2, [sym_comment, sym_documentation_comment]), (ACTIONS
       5276, 6, [anon_sym_LBRACE, anon_sym_COMMA, anon_sym_SEMI, anon_sym_EQ_GT,
       anon_sym_async_STAR, anon_sym_sync_STAR])])]"

lemma small_run_806: "small_run 2349 120685 ts_small_parse_table_806 2355 120873"
  by (simp add: small_simps ts_small_parse_table_806_def)

definition ts_small_parse_table_807 :: "small_group list" where
  "ts_small_parse_table_807 = [
     (120873, 8, [(ACTIONS 3, 1, [anon_sym_SLASH_SLASH]), (ACTIONS 5, 1,
       [anon_sym_SLASH_STAR]), (ACTIONS 7, 1, [anon_sym_SLASH_SLASH_SLASH]), (ACTIONS 9, 1,
       [sym__block_comment]), (ACTIONS 11, 1, [sym__documentation_block_comment]), (ACTIONS 2982,
       1, [anon_sym_QMARK]), (STATE 2355, 2, [sym_comment, sym_documentation_comment]), (ACTIONS
       2980, 6, [anon_sym_LBRACK, anon_sym_LPAREN, anon_sym_LT, anon_sym_BANG, anon_sym_DOT,
       anon_sym_QMARK_DOT])]),
     (120904, 8, [(ACTIONS 3, 1, [anon_sym_SLASH_SLASH]), (ACTIONS 5, 1,
       [anon_sym_SLASH_STAR]), (ACTIONS 7, 1, [anon_sym_SLASH_SLASH_SLASH]), (ACTIONS 9, 1,
       [sym__block_comment]), (ACTIONS 11, 1, [sym__documentation_block_comment]), (ACTIONS 2990,
       1, [anon_sym_QMARK]), (STATE 2356, 2, [sym_comment, sym_documentation_comment]), (ACTIONS
       2988, 6, [anon_sym_LBRACK, anon_sym_LPAREN, anon_sym_LT, anon_sym_BANG, anon_sym_DOT,
       anon_sym_QMARK_DOT])]),
     (120935, 13, [(ACTIONS 3, 1, [anon_sym_SLASH_SLASH]), (ACTIONS 5, 1,
       [anon_sym_SLASH_STAR]), (ACTIONS 7, 1, [anon_sym_SLASH_SLASH_SLASH]), (ACTIONS 9, 1,
       [sym__block_comment]), (ACTIONS 11, 1, [sym__documentation_block_comment]), (ACTIONS 47,
       1, [anon_sym_get]), (ACTIONS 61, 1, [anon_sym_set]), (ACTIONS 5280, 1, [sym_identifier]),
       (STATE 2372, 1, [sym__get]), (STATE 2378, 1, [sym__set]), (STATE 2991, 1,
       [sym_initialized_identifier]), (STATE 3520, 1, [sym_initialized_identifier_list]), (STATE
       2357, 2, [sym_comment, sym_documentation_comment])]),
     (120976, 12, [(ACTIONS 3, 1, [anon_sym_SLASH_SLASH]), (ACTIONS 5, 1,
       [anon_sym_SLASH_STAR]), (ACTIONS 7, 1, [anon_sym_SLASH_SLASH_SLASH]), (ACTIONS 9, 1,
       [sym__block_comment]), (ACTIONS 11, 1, [sym__documentation_block_comment]), (ACTIONS 5282,
       1, [anon_sym_LBRACE]), (ACTIONS 5284, 1, [anon_sym_EQ_GT]), (ACTIONS 5286, 1,
       [anon_sym_async]), (STATE 1085, 1, [sym_function_expression_body]), (STATE 1119, 1,
       [sym_block]), (ACTIONS 5288, 2, [anon_sym_async_STAR, anon_sym_sync_STAR]), (STATE 2358,
       2, [sym_comment, sym_documentation_comment])]),
     (121015, 8, [(ACTIONS 3, 1, [anon_sym_SLASH_SLASH]), (ACTIONS 5, 1,
       [anon_sym_SLASH_STAR]), (ACTIONS 7, 1, [anon_sym_SLASH_SLASH_SLASH]), (ACTIONS 9, 1,
       [sym__block_comment]), (ACTIONS 11, 1, [sym__documentation_block_comment]), (ACTIONS 3060,
       1, [anon_sym_QMARK]), (STATE 2359, 2, [sym_comment, sym_documentation_comment]), (ACTIONS
       3058, 6, [anon_sym_LBRACK, anon_sym_LPAREN, anon_sym_LT, anon_sym_BANG, anon_sym_DOT,
       anon_sym_QMARK_DOT])]),
     (121046, 8, [(ACTIONS 3, 1, [anon_sym_SLASH_SLASH]), (ACTIONS 5, 1,
       [anon_sym_SLASH_STAR]), (ACTIONS 7, 1, [anon_sym_SLASH_SLASH_SLASH]), (ACTIONS 9, 1,
       [sym__block_comment]), (ACTIONS 11, 1, [sym__documentation_block_comment]), (ACTIONS 5292,
       1, [anon_sym_async]), (STATE 2360, 2, [sym_comment, sym_documentation_comment]), (ACTIONS
       5290, 6, [anon_sym_LBRACE, anon_sym_COMMA, anon_sym_SEMI, anon_sym_EQ_GT,
       anon_sym_async_STAR, anon_sym_sync_STAR])])]"

lemma small_run_807: "small_run 2355 120873 ts_small_parse_table_807 2361 121077"
  by (simp add: small_simps ts_small_parse_table_807_def)

definition ts_small_parse_table_808 :: "small_group list" where
  "ts_small_parse_table_808 = [
     (121077, 9, [(ACTIONS 3, 1, [anon_sym_SLASH_SLASH]), (ACTIONS 5, 1,
       [anon_sym_SLASH_STAR]), (ACTIONS 7, 1, [anon_sym_SLASH_SLASH_SLASH]), (ACTIONS 9, 1,
       [sym__block_comment]), (ACTIONS 11, 1, [sym__documentation_block_comment]), (ACTIONS 5296,
       1, [anon_sym_if]), (STATE 2543, 1, [sym_configuration_uri]), (STATE 2361, 3, [sym_comment,
       sym_documentation_comment, aux_sym_configurable_uri_repeat1]), (ACTIONS 5294, 4,
       [anon_sym_as, anon_sym_SEMI, anon_sym_show, anon_sym_hide])]),
     (121110, 8, [(ACTIONS 3, 1, [anon_sym_SLASH_SLASH]), (ACTIONS 5, 1,
       [anon_sym_SLASH_STAR]), (ACTIONS 7, 1, [anon_sym_SLASH_SLASH_SLASH]), (ACTIONS 9, 1,
       [sym__block_comment]), (ACTIONS 11, 1, [sym__documentation_block_comment]), (ACTIONS 5299,
       1, [anon_sym_DQUOTE]), (STATE 2362, 2, [sym_comment, sym_documentation_comment]), (ACTIONS
       5301, 6, [sym__template_chars_double, sym__template_chars_raw_slash, anon_sym_SQUOTE,
       anon_sym_DQUOTE_DQUOTE_DQUOTE, anon_sym_DOLLAR, sym__unused_escape_sequence])]),
     (121141, 8, [(ACTIONS 3, 1, [anon_sym_SLASH_SLASH]), (ACTIONS 5, 1,
       [anon_sym_SLASH_STAR]), (ACTIONS 7, 1, [anon_sym_SLASH_SLASH_SLASH]), (ACTIONS 9, 1,
       [sym__block_comment]), (ACTIONS 11, 1, [sym__documentation_block_comment]), (ACTIONS 3088,
       1, [anon_sym_QMARK]), (STATE 2363, 2, [sym_comment, sym_documentation_comment]), (ACTIONS
       3086, 6, [anon_sym_LBRACK, anon_sym_LPAREN, anon_sym_LT, anon_sym_BANG, anon_sym_DOT,
       anon_sym_QMARK_DOT])]),
     (121172, 8, [(ACTIONS 3, 1, [anon_sym_SLASH_SLASH]), (ACTIONS 5, 1,
       [anon_sym_SLASH_STAR]), (ACTIONS 7, 1, [anon_sym_SLASH_SLASH_SLASH]), (ACTIONS 9, 1,
       [sym__block_comment]), (ACTIONS 11, 1, [sym__documentation_block_comment]), (ACTIONS 3068,
       1, [anon_sym_QMARK]), (STATE 2364, 2, [sym_comment, sym_documentation_comment]), (ACTIONS
       3066, 6, [anon_sym_LBRACK, anon_sym_LPAREN, anon_sym_LT, anon_sym_BANG, anon_sym_DOT,
       anon_sym_QMARK_DOT])]),
     (121203, 8, [(ACTIONS 3, 1, [anon_sym_SLASH_SLASH]), (ACTIONS 5, 1,
       [anon_sym_SLASH_STAR]), (ACTIONS 7, 1, [anon_sym_SLASH_SLASH_SLASH]), (ACTIONS 9, 1,
       [sym__block_comment]), (ACTIONS 11, 1, [sym__documentation_block_comment]), (ACTIONS 2954,
       1, [anon_sym_QMARK]), (STATE 2365, 2, [sym_comment, sym_documentation_comment]), (ACTIONS
       2952, 6, [anon_sym_LBRACK, anon_sym_LPAREN, anon_sym_LT, anon_sym_BANG, anon_sym_DOT,
       anon_sym_QMARK_DOT])]),
     (121234, 8, [(ACTIONS 3, 1, [anon_sym_SLASH_SLASH]), (ACTIONS 5, 1,
       [anon_sym_SLASH_STAR]), (ACTIONS 7, 1, [anon_sym_SLASH_SLASH_SLASH]), (ACTIONS 9, 1,
       [sym__block_comment]), (ACTIONS 11, 1, [sym__documentation_block_comment]), (ACTIONS 2914,
       1, [anon_sym_QMARK]), (STATE 2366, 2, [sym_comment, sym_documentation_comment]), (ACTIONS
       2912, 6, [anon_sym_LBRACK, anon_sym_LPAREN, anon_sym_LT, anon_sym_BANG, anon_sym_DOT,
       anon_sym_QMARK_DOT])])]"

lemma small_run_808: "small_run 2361 121077 ts_small_parse_table_808 2367 121265"
  by (simp add: small_simps ts_small_parse_table_808_def)

definition ts_small_parse_table_809 :: "small_group list" where
  "ts_small_parse_table_809 = [
     (121265, 8, [(ACTIONS 3, 1, [anon_sym_SLASH_SLASH]), (ACTIONS 5, 1,
       [anon_sym_SLASH_STAR]), (ACTIONS 7, 1, [anon_sym_SLASH_SLASH_SLASH]), (ACTIONS 9, 1,
       [sym__block_comment]), (ACTIONS 11, 1, [sym__documentation_block_comment]), (ACTIONS 3044,
       1, [anon_sym_QMARK]), (STATE 2367, 2, [sym_comment, sym_documentation_comment]), (ACTIONS
       3042, 6, [anon_sym_LBRACK, anon_sym_LPAREN, anon_sym_LT, anon_sym_BANG, anon_sym_DOT,
       anon_sym_QMARK_DOT])]),
     (121296, 12, [(ACTIONS 3, 1, [anon_sym_SLASH_SLASH]), (ACTIONS 5, 1,
       [anon_sym_SLASH_STAR]), (ACTIONS 7, 1, [anon_sym_SLASH_SLASH_SLASH]), (ACTIONS 9, 1,
       [sym__block_comment]), (ACTIONS 11, 1, [sym__documentation_block_comment]), (ACTIONS 4833,
       1, [anon_sym_LBRACE]), (ACTIONS 4835, 1, [anon_sym_EQ_GT]), (ACTIONS 4837, 1,
       [anon_sym_async]), (STATE 446, 1, [sym_block]), (STATE 538, 1, [sym_function_body]),
       (ACTIONS 4839, 2, [anon_sym_async_STAR, anon_sym_sync_STAR]), (STATE 2368, 2,
       [sym_comment, sym_documentation_comment])]),
     (121335, 8, [(ACTIONS 3, 1, [anon_sym_SLASH_SLASH]), (ACTIONS 5, 1,
       [anon_sym_SLASH_STAR]), (ACTIONS 7, 1, [anon_sym_SLASH_SLASH_SLASH]), (ACTIONS 9, 1,
       [sym__block_comment]), (ACTIONS 11, 1, [sym__documentation_block_comment]), (ACTIONS 1332,
       1, [anon_sym_QMARK]), (STATE 2369, 2, [sym_comment, sym_documentation_comment]), (ACTIONS
       1322, 6, [anon_sym_LBRACK, anon_sym_LPAREN, anon_sym_LT, anon_sym_BANG, anon_sym_DOT,
       anon_sym_QMARK_DOT])]),
     (121366, 12, [(ACTIONS 3, 1, [anon_sym_SLASH_SLASH]), (ACTIONS 5, 1,
       [anon_sym_SLASH_STAR]), (ACTIONS 7, 1, [anon_sym_SLASH_SLASH_SLASH]), (ACTIONS 9, 1,
       [sym__block_comment]), (ACTIONS 11, 1, [sym__documentation_block_comment]), (ACTIONS 4833,
       1, [anon_sym_LBRACE]), (ACTIONS 4835, 1, [anon_sym_EQ_GT]), (ACTIONS 4837, 1,
       [anon_sym_async]), (STATE 446, 1, [sym_block]), (STATE 1959, 1, [sym_function_body]),
       (ACTIONS 4839, 2, [anon_sym_async_STAR, anon_sym_sync_STAR]), (STATE 2370, 2,
       [sym_comment, sym_documentation_comment])]),
     (121405, 8, [(ACTIONS 3, 1, [anon_sym_SLASH_SLASH]), (ACTIONS 5, 1,
       [anon_sym_SLASH_STAR]), (ACTIONS 7, 1, [anon_sym_SLASH_SLASH_SLASH]), (ACTIONS 9, 1,
       [sym__block_comment]), (ACTIONS 11, 1, [sym__documentation_block_comment]), (ACTIONS 2816,
       1, [anon_sym_QMARK]), (STATE 2371, 2, [sym_comment, sym_documentation_comment]), (ACTIONS
       2814, 6, [anon_sym_LBRACK, anon_sym_LPAREN, anon_sym_LT, anon_sym_BANG, anon_sym_DOT,
       anon_sym_QMARK_DOT])])]"

lemma small_run_809: "small_run 2367 121265 ts_small_parse_table_809 2372 121436"
  by (simp add: small_simps ts_small_parse_table_809_def)

definition ts_small_parse_table_810 :: "small_group list" where
  "ts_small_parse_table_810 = [
     (121436, 13, [(ACTIONS 3, 1, [anon_sym_SLASH_SLASH]), (ACTIONS 5, 1,
       [anon_sym_SLASH_STAR]), (ACTIONS 7, 1, [anon_sym_SLASH_SLASH_SLASH]), (ACTIONS 9, 1,
       [sym__block_comment]), (ACTIONS 11, 1, [sym__documentation_block_comment]), (ACTIONS 3511,
       1, [anon_sym_LT]), (ACTIONS 4278, 1, [anon_sym_LPAREN]), (ACTIONS 5303, 1,
       [sym_identifier]), (STATE 2016, 1, [sym__strict_formal_parameter_list]), (STATE 2020, 1,
       [sym_formal_parameter_list]), (STATE 2305, 1, [sym__formal_parameter_part]), (STATE 2932,
       1, [sym_type_parameters]), (STATE 2372, 2, [sym_comment, sym_documentation_comment])]),
     (121477, 7, [(ACTIONS 3, 1, [anon_sym_SLASH_SLASH]), (ACTIONS 5, 1,
       [anon_sym_SLASH_STAR]), (ACTIONS 7, 1, [anon_sym_SLASH_SLASH_SLASH]), (ACTIONS 9, 1,
       [sym__block_comment]), (ACTIONS 11, 1, [sym__documentation_block_comment]), (STATE 2373,
       2, [sym_comment, sym_documentation_comment]), (ACTIONS 5305, 7, [anon_sym_RBRACE,
       anon_sym_COMMA, anon_sym_RBRACK, anon_sym_COLON, anon_sym_RPAREN, anon_sym_EQ_GT,
       anon_sym_when])]),
     (121506, 8, [(ACTIONS 3, 1, [anon_sym_SLASH_SLASH]), (ACTIONS 5, 1,
       [anon_sym_SLASH_STAR]), (ACTIONS 7, 1, [anon_sym_SLASH_SLASH_SLASH]), (ACTIONS 9, 1,
       [sym__block_comment]), (ACTIONS 11, 1, [sym__documentation_block_comment]), (ACTIONS 1733,
       1, [anon_sym_QMARK]), (STATE 2374, 2, [sym_comment, sym_documentation_comment]), (ACTIONS
       1731, 6, [anon_sym_LBRACK, anon_sym_LPAREN, anon_sym_LT, anon_sym_BANG, anon_sym_DOT,
       anon_sym_QMARK_DOT])]),
     (121537, 8, [(ACTIONS 3, 1, [anon_sym_SLASH_SLASH]), (ACTIONS 5, 1,
       [anon_sym_SLASH_STAR]), (ACTIONS 7, 1, [anon_sym_SLASH_SLASH_SLASH]), (ACTIONS 9, 1,
       [sym__block_comment]), (ACTIONS 11, 1, [sym__documentation_block_comment]), (ACTIONS 5309,
       1, [anon_sym_async]), (STATE 2375, 2, [sym_comment, sym_documentation_comment]), (ACTIONS
       5307, 6, [anon_sym_LBRACE, anon_sym_COMMA, anon_sym_SEMI, anon_sym_EQ_GT,
       anon_sym_async_STAR, anon_sym_sync_STAR])]),
     (121568, 8, [(ACTIONS 3, 1, [anon_sym_SLASH_SLASH]), (ACTIONS 5, 1,
       [anon_sym_SLASH_STAR]), (ACTIONS 7, 1, [anon_sym_SLASH_SLASH_SLASH]), (ACTIONS 9, 1,
       [sym__block_comment]), (ACTIONS 11, 1, [sym__documentation_block_comment]), (ACTIONS 2698,
       1, [anon_sym_QMARK]), (STATE 2376, 2, [sym_comment, sym_documentation_comment]), (ACTIONS
       2694, 6, [anon_sym_LBRACK, anon_sym_LPAREN, anon_sym_LT, anon_sym_BANG, anon_sym_DOT,
       anon_sym_QMARK_DOT])]),
     (121599, 13, [(ACTIONS 3, 1, [anon_sym_SLASH_SLASH]), (ACTIONS 5, 1,
       [anon_sym_SLASH_STAR]), (ACTIONS 7, 1, [anon_sym_SLASH_SLASH_SLASH]), (ACTIONS 9, 1,
       [sym__block_comment]), (ACTIONS 11, 1, [sym__documentation_block_comment]), (ACTIONS 3511,
       1, [anon_sym_LT]), (ACTIONS 4278, 1, [anon_sym_LPAREN]), (ACTIONS 5311, 1,
       [sym_identifier]), (STATE 2016, 1, [sym__strict_formal_parameter_list]), (STATE 2020, 1,
       [sym_formal_parameter_list]), (STATE 2311, 1, [sym__formal_parameter_part]), (STATE 2932,
       1, [sym_type_parameters]), (STATE 2377, 2, [sym_comment, sym_documentation_comment])])]"

lemma small_run_810: "small_run 2372 121436 ts_small_parse_table_810 2378 121640"
  by (simp add: small_simps ts_small_parse_table_810_def)

definition ts_small_parse_table_811 :: "small_group list" where
  "ts_small_parse_table_811 = [
     (121640, 13, [(ACTIONS 3, 1, [anon_sym_SLASH_SLASH]), (ACTIONS 5, 1,
       [anon_sym_SLASH_STAR]), (ACTIONS 7, 1, [anon_sym_SLASH_SLASH_SLASH]), (ACTIONS 9, 1,
       [sym__block_comment]), (ACTIONS 11, 1, [sym__documentation_block_comment]), (ACTIONS 3511,
       1, [anon_sym_LT]), (ACTIONS 4278, 1, [anon_sym_LPAREN]), (ACTIONS 5313, 1,
       [sym_identifier]), (STATE 2016, 1, [sym__strict_formal_parameter_list]), (STATE 2020, 1,
       [sym_formal_parameter_list]), (STATE 2305, 1, [sym__formal_parameter_part]), (STATE 2932,
       1, [sym_type_parameters]), (STATE 2378, 2, [sym_comment, sym_documentation_comment])]),
     (121681, 8, [(ACTIONS 3, 1, [anon_sym_SLASH_SLASH]), (ACTIONS 5, 1,
       [anon_sym_SLASH_STAR]), (ACTIONS 7, 1, [anon_sym_SLASH_SLASH_SLASH]), (ACTIONS 9, 1,
       [sym__block_comment]), (ACTIONS 11, 1, [sym__documentation_block_comment]), (ACTIONS 2938,
       1, [anon_sym_QMARK]), (STATE 2379, 2, [sym_comment, sym_documentation_comment]), (ACTIONS
       2936, 6, [anon_sym_LBRACK, anon_sym_LPAREN, anon_sym_LT, anon_sym_BANG, anon_sym_DOT,
       anon_sym_QMARK_DOT])]),
     (121712, 8, [(ACTIONS 3, 1, [anon_sym_SLASH_SLASH]), (ACTIONS 5, 1,
       [anon_sym_SLASH_STAR]), (ACTIONS 7, 1, [anon_sym_SLASH_SLASH_SLASH]), (ACTIONS 9, 1,
       [sym__block_comment]), (ACTIONS 11, 1, [sym__documentation_block_comment]), (ACTIONS 3064,
       1, [anon_sym_QMARK]), (STATE 2380, 2, [sym_comment, sym_documentation_comment]), (ACTIONS
       3062, 6, [anon_sym_LBRACK, anon_sym_LPAREN, anon_sym_LT, anon_sym_BANG, anon_sym_DOT,
       anon_sym_QMARK_DOT])]),
     (121743, 8, [(ACTIONS 3, 1, [anon_sym_SLASH_SLASH]), (ACTIONS 5, 1,
       [anon_sym_SLASH_STAR]), (ACTIONS 7, 1, [anon_sym_SLASH_SLASH_SLASH]), (ACTIONS 9, 1,
       [sym__block_comment]), (ACTIONS 11, 1, [sym__documentation_block_comment]), (ACTIONS 2718,
       1, [anon_sym_QMARK]), (STATE 2381, 2, [sym_comment, sym_documentation_comment]), (ACTIONS
       2716, 6, [anon_sym_LBRACK, anon_sym_LPAREN, anon_sym_LT, anon_sym_BANG, anon_sym_DOT,
       anon_sym_QMARK_DOT])]),
     (121774, 8, [(ACTIONS 3, 1, [anon_sym_SLASH_SLASH]), (ACTIONS 5, 1,
       [anon_sym_SLASH_STAR]), (ACTIONS 7, 1, [anon_sym_SLASH_SLASH_SLASH]), (ACTIONS 9, 1,
       [sym__block_comment]), (ACTIONS 11, 1, [sym__documentation_block_comment]), (ACTIONS 2922,
       1, [anon_sym_QMARK]), (STATE 2382, 2, [sym_comment, sym_documentation_comment]), (ACTIONS
       2920, 6, [anon_sym_LBRACK, anon_sym_LPAREN, anon_sym_LT, anon_sym_BANG, anon_sym_DOT,
       anon_sym_QMARK_DOT])]),
     (121805, 8, [(ACTIONS 3, 1, [anon_sym_SLASH_SLASH]), (ACTIONS 5, 1,
       [anon_sym_SLASH_STAR]), (ACTIONS 7, 1, [anon_sym_SLASH_SLASH_SLASH]), (ACTIONS 9, 1,
       [sym__block_comment]), (ACTIONS 11, 1, [sym__documentation_block_comment]), (ACTIONS 3034,
       1, [anon_sym_QMARK]), (STATE 2383, 2, [sym_comment, sym_documentation_comment]), (ACTIONS
       3032, 6, [anon_sym_LBRACK, anon_sym_LPAREN, anon_sym_LT, anon_sym_BANG, anon_sym_DOT,
       anon_sym_QMARK_DOT])])]"

lemma small_run_811: "small_run 2378 121640 ts_small_parse_table_811 2384 121836"
  by (simp add: small_simps ts_small_parse_table_811_def)

definition ts_small_parse_table_812 :: "small_group list" where
  "ts_small_parse_table_812 = [
     (121836, 8, [(ACTIONS 3, 1, [anon_sym_SLASH_SLASH]), (ACTIONS 5, 1,
       [anon_sym_SLASH_STAR]), (ACTIONS 7, 1, [anon_sym_SLASH_SLASH_SLASH]), (ACTIONS 9, 1,
       [sym__block_comment]), (ACTIONS 11, 1, [sym__documentation_block_comment]), (ACTIONS 3030,
       1, [anon_sym_QMARK]), (STATE 2384, 2, [sym_comment, sym_documentation_comment]), (ACTIONS
       3028, 6, [anon_sym_LBRACK, anon_sym_LPAREN, anon_sym_LT, anon_sym_BANG, anon_sym_DOT,
       anon_sym_QMARK_DOT])]),
     (121867, 8, [(ACTIONS 3, 1, [anon_sym_SLASH_SLASH]), (ACTIONS 5, 1,
       [anon_sym_SLASH_STAR]), (ACTIONS 7, 1, [anon_sym_SLASH_SLASH_SLASH]), (ACTIONS 9, 1,
       [sym__block_comment]), (ACTIONS 11, 1, [sym__documentation_block_comment]), (ACTIONS 1686,
       1, [anon_sym_QMARK]), (STATE 2385, 2, [sym_comment, sym_documentation_comment]), (ACTIONS
       1680, 6, [anon_sym_LBRACK, anon_sym_LPAREN, anon_sym_LT, anon_sym_BANG, anon_sym_DOT,
       anon_sym_QMARK_DOT])]),
     (121898, 8, [(ACTIONS 3, 1, [anon_sym_SLASH_SLASH]), (ACTIONS 5, 1,
       [anon_sym_SLASH_STAR]), (ACTIONS 7, 1, [anon_sym_SLASH_SLASH_SLASH]), (ACTIONS 9, 1,
       [sym__block_comment]), (ACTIONS 11, 1, [sym__documentation_block_comment]), (ACTIONS 2688,
       1, [anon_sym_QMARK]), (STATE 2386, 2, [sym_comment, sym_documentation_comment]), (ACTIONS
       2686, 6, [anon_sym_LBRACK, anon_sym_LPAREN, anon_sym_LT, anon_sym_BANG, anon_sym_DOT,
       anon_sym_QMARK_DOT])]),
     (121929, 8, [(ACTIONS 3, 1, [anon_sym_SLASH_SLASH]), (ACTIONS 5, 1,
       [anon_sym_SLASH_STAR]), (ACTIONS 7, 1, [anon_sym_SLASH_SLASH_SLASH]), (ACTIONS 9, 1,
       [sym__block_comment]), (ACTIONS 11, 1, [sym__documentation_block_comment]), (ACTIONS 2820,
       1, [anon_sym_QMARK]), (STATE 2387, 2, [sym_comment, sym_documentation_comment]), (ACTIONS
       2818, 6, [anon_sym_LBRACK, anon_sym_LPAREN, anon_sym_LT, anon_sym_BANG, anon_sym_DOT,
       anon_sym_QMARK_DOT])]),
     (121960, 8, [(ACTIONS 3, 1, [anon_sym_SLASH_SLASH]), (ACTIONS 5, 1,
       [anon_sym_SLASH_STAR]), (ACTIONS 7, 1, [anon_sym_SLASH_SLASH_SLASH]), (ACTIONS 9, 1,
       [sym__block_comment]), (ACTIONS 11, 1, [sym__documentation_block_comment]), (ACTIONS 2874,
       1, [anon_sym_QMARK]), (STATE 2388, 2, [sym_comment, sym_documentation_comment]), (ACTIONS
       2872, 6, [anon_sym_LBRACK, anon_sym_LPAREN, anon_sym_LT, anon_sym_BANG, anon_sym_DOT,
       anon_sym_QMARK_DOT])]),
     (121991, 8, [(ACTIONS 3, 1, [anon_sym_SLASH_SLASH]), (ACTIONS 5, 1,
       [anon_sym_SLASH_STAR]), (ACTIONS 7, 1, [anon_sym_SLASH_SLASH_SLASH]), (ACTIONS 9, 1,
       [sym__block_comment]), (ACTIONS 11, 1, [sym__documentation_block_comment]), (ACTIONS 2986,
       1, [anon_sym_QMARK]), (STATE 2389, 2, [sym_comment, sym_documentation_comment]), (ACTIONS
       2984, 6, [anon_sym_LBRACK, anon_sym_LPAREN, anon_sym_LT, anon_sym_BANG, anon_sym_DOT,
       anon_sym_QMARK_DOT])])]"

lemma small_run_812: "small_run 2384 121836 ts_small_parse_table_812 2390 122022"
  by (simp add: small_simps ts_small_parse_table_812_def)

definition ts_small_parse_table_813 :: "small_group list" where
  "ts_small_parse_table_813 = [
     (122022, 8, [(ACTIONS 3, 1, [anon_sym_SLASH_SLASH]), (ACTIONS 5, 1,
       [anon_sym_SLASH_STAR]), (ACTIONS 7, 1, [anon_sym_SLASH_SLASH_SLASH]), (ACTIONS 9, 1,
       [sym__block_comment]), (ACTIONS 11, 1, [sym__documentation_block_comment]), (ACTIONS 2906,
       1, [anon_sym_QMARK]), (STATE 2390, 2, [sym_comment, sym_documentation_comment]), (ACTIONS
       2904, 6, [anon_sym_LBRACK, anon_sym_LPAREN, anon_sym_LT, anon_sym_BANG, anon_sym_DOT,
       anon_sym_QMARK_DOT])]),
     (122053, 8, [(ACTIONS 3, 1, [anon_sym_SLASH_SLASH]), (ACTIONS 5, 1,
       [anon_sym_SLASH_STAR]), (ACTIONS 7, 1, [anon_sym_SLASH_SLASH_SLASH]), (ACTIONS 9, 1,
       [sym__block_comment]), (ACTIONS 11, 1, [sym__documentation_block_comment]), (ACTIONS 2878,
       1, [anon_sym_QMARK]), (STATE 2391, 2, [sym_comment, sym_documentation_comment]), (ACTIONS
       2876, 6, [anon_sym_LBRACK, anon_sym_LPAREN, anon_sym_LT, anon_sym_BANG, anon_sym_DOT,
       anon_sym_QMARK_DOT])]),
     (122084, 8, [(ACTIONS 3, 1, [anon_sym_SLASH_SLASH]), (ACTIONS 5, 1,
       [anon_sym_SLASH_STAR]), (ACTIONS 7, 1, [anon_sym_SLASH_SLASH_SLASH]), (ACTIONS 9, 1,
       [sym__block_comment]), (ACTIONS 11, 1, [sym__documentation_block_comment]), (ACTIONS 5317,
       1, [anon_sym_async]), (STATE 2392, 2, [sym_comment, sym_documentation_comment]), (ACTIONS
       5315, 6, [anon_sym_LBRACE, anon_sym_COMMA, anon_sym_SEMI, anon_sym_EQ_GT,
       anon_sym_async_STAR, anon_sym_sync_STAR])]),
     (122115, 8, [(ACTIONS 3, 1, [anon_sym_SLASH_SLASH]), (ACTIONS 5, 1,
       [anon_sym_SLASH_STAR]), (ACTIONS 7, 1, [anon_sym_SLASH_SLASH_SLASH]), (ACTIONS 9, 1,
       [sym__block_comment]), (ACTIONS 11, 1, [sym__documentation_block_comment]), (ACTIONS 1277,
       1, [anon_sym_QMARK]), (STATE 2393, 2, [sym_comment, sym_documentation_comment]), (ACTIONS
       1257, 6, [anon_sym_LBRACK, anon_sym_LPAREN, anon_sym_LT, anon_sym_BANG, anon_sym_DOT,
       anon_sym_QMARK_DOT])]),
     (122146, 8, [(ACTIONS 3, 1, [anon_sym_SLASH_SLASH]), (ACTIONS 5, 1,
       [anon_sym_SLASH_STAR]), (ACTIONS 7, 1, [anon_sym_SLASH_SLASH_SLASH]), (ACTIONS 9, 1,
       [sym__block_comment]), (ACTIONS 11, 1, [sym__documentation_block_comment]), (ACTIONS 2743,
       1, [anon_sym_QMARK]), (STATE 2394, 2, [sym_comment, sym_documentation_comment]), (ACTIONS
       2741, 6, [anon_sym_LBRACK, anon_sym_LPAREN, anon_sym_LT, anon_sym_BANG, anon_sym_DOT,
       anon_sym_QMARK_DOT])]),
     (122177, 13, [(ACTIONS 3, 1, [anon_sym_SLASH_SLASH]), (ACTIONS 5, 1,
       [anon_sym_SLASH_STAR]), (ACTIONS 7, 1, [anon_sym_SLASH_SLASH_SLASH]), (ACTIONS 9, 1,
       [sym__block_comment]), (ACTIONS 11, 1, [sym__documentation_block_comment]), (ACTIONS 3511,
       1, [anon_sym_LT]), (ACTIONS 4278, 1, [anon_sym_LPAREN]), (ACTIONS 5319, 1,
       [sym_identifier]), (STATE 2016, 1, [sym__strict_formal_parameter_list]), (STATE 2020, 1,
       [sym_formal_parameter_list]), (STATE 2841, 1, [sym__formal_parameter_part]), (STATE 2932,
       1, [sym_type_parameters]), (STATE 2395, 2, [sym_comment, sym_documentation_comment])])]"

lemma small_run_813: "small_run 2390 122022 ts_small_parse_table_813 2396 122218"
  by (simp add: small_simps ts_small_parse_table_813_def)

definition ts_small_parse_table_814 :: "small_group list" where
  "ts_small_parse_table_814 = [
     (122218, 8, [(ACTIONS 3, 1, [anon_sym_SLASH_SLASH]), (ACTIONS 5, 1,
       [anon_sym_SLASH_STAR]), (ACTIONS 7, 1, [anon_sym_SLASH_SLASH_SLASH]), (ACTIONS 9, 1,
       [sym__block_comment]), (ACTIONS 11, 1, [sym__documentation_block_comment]), (ACTIONS 1697,
       1, [anon_sym_QMARK]), (STATE 2396, 2, [sym_comment, sym_documentation_comment]), (ACTIONS
       1695, 6, [anon_sym_LBRACK, anon_sym_LPAREN, anon_sym_LT, anon_sym_BANG, anon_sym_DOT,
       anon_sym_QMARK_DOT])]),
     (122249, 8, [(ACTIONS 3, 1, [anon_sym_SLASH_SLASH]), (ACTIONS 5, 1,
       [anon_sym_SLASH_STAR]), (ACTIONS 7, 1, [anon_sym_SLASH_SLASH_SLASH]), (ACTIONS 9, 1,
       [sym__block_comment]), (ACTIONS 11, 1, [sym__documentation_block_comment]), (ACTIONS 2834,
       1, [anon_sym_QMARK]), (STATE 2397, 2, [sym_comment, sym_documentation_comment]), (ACTIONS
       2832, 6, [anon_sym_LBRACK, anon_sym_LPAREN, anon_sym_LT, anon_sym_BANG, anon_sym_DOT,
       anon_sym_QMARK_DOT])]),
     (122280, 8, [(ACTIONS 3, 1, [anon_sym_SLASH_SLASH]), (ACTIONS 5, 1,
       [anon_sym_SLASH_STAR]), (ACTIONS 7, 1, [anon_sym_SLASH_SLASH_SLASH]), (ACTIONS 9, 1,
       [sym__block_comment]), (ACTIONS 11, 1, [sym__documentation_block_comment]), (ACTIONS 5204,
       1, [anon_sym_SQUOTE]), (STATE 2398, 2, [sym_comment, sym_documentation_comment]), (ACTIONS
       5208, 6, [sym__template_chars_single, sym__template_chars_raw_slash, anon_sym_DQUOTE,
       anon_sym_SQUOTE_SQUOTE_SQUOTE, anon_sym_DOLLAR, sym__unused_escape_sequence])]),
     (122311, 8, [(ACTIONS 3, 1, [anon_sym_SLASH_SLASH]), (ACTIONS 5, 1,
       [anon_sym_SLASH_STAR]), (ACTIONS 7, 1, [anon_sym_SLASH_SLASH_SLASH]), (ACTIONS 9, 1,
       [sym__block_comment]), (ACTIONS 11, 1, [sym__documentation_block_comment]), (ACTIONS 3096,
       1, [anon_sym_QMARK]), (STATE 2399, 2, [sym_comment, sym_documentation_comment]), (ACTIONS
       3094, 6, [anon_sym_LBRACK, anon_sym_LPAREN, anon_sym_LT, anon_sym_BANG, anon_sym_DOT,
       anon_sym_QMARK_DOT])]),
     (122342, 13, [(ACTIONS 3, 1, [anon_sym_SLASH_SLASH]), (ACTIONS 5, 1,
       [anon_sym_SLASH_STAR]), (ACTIONS 7, 1, [anon_sym_SLASH_SLASH_SLASH]), (ACTIONS 9, 1,
       [sym__block_comment]), (ACTIONS 11, 1, [sym__documentation_block_comment]), (ACTIONS 3511,
       1, [anon_sym_LT]), (ACTIONS 4278, 1, [anon_sym_LPAREN]), (ACTIONS 5321, 1,
       [sym_identifier]), (STATE 2016, 1, [sym__strict_formal_parameter_list]), (STATE 2020, 1,
       [sym_formal_parameter_list]), (STATE 2841, 1, [sym__formal_parameter_part]), (STATE 2932,
       1, [sym_type_parameters]), (STATE 2400, 2, [sym_comment, sym_documentation_comment])]),
     (122383, 8, [(ACTIONS 3, 1, [anon_sym_SLASH_SLASH]), (ACTIONS 5, 1,
       [anon_sym_SLASH_STAR]), (ACTIONS 7, 1, [anon_sym_SLASH_SLASH_SLASH]), (ACTIONS 9, 1,
       [sym__block_comment]), (ACTIONS 11, 1, [sym__documentation_block_comment]), (ACTIONS 1729,
       1, [anon_sym_QMARK]), (STATE 2401, 2, [sym_comment, sym_documentation_comment]), (ACTIONS
       1727, 6, [anon_sym_LBRACK, anon_sym_LPAREN, anon_sym_LT, anon_sym_BANG, anon_sym_DOT,
       anon_sym_QMARK_DOT])])]"

lemma small_run_814: "small_run 2396 122218 ts_small_parse_table_814 2402 122414"
  by (simp add: small_simps ts_small_parse_table_814_def)

definition ts_small_parse_table_815 :: "small_group list" where
  "ts_small_parse_table_815 = [
     (122414, 8, [(ACTIONS 3, 1, [anon_sym_SLASH_SLASH]), (ACTIONS 5, 1,
       [anon_sym_SLASH_STAR]), (ACTIONS 7, 1, [anon_sym_SLASH_SLASH_SLASH]), (ACTIONS 9, 1,
       [sym__block_comment]), (ACTIONS 11, 1, [sym__documentation_block_comment]), (ACTIONS 5159,
       1, [anon_sym_DQUOTE]), (STATE 2402, 2, [sym_comment, sym_documentation_comment]), (ACTIONS
       5163, 6, [sym__template_chars_double, sym__template_chars_raw_slash, anon_sym_SQUOTE,
       anon_sym_DQUOTE_DQUOTE_DQUOTE, anon_sym_DOLLAR, sym__unused_escape_sequence])]),
     (122445, 12, [(ACTIONS 3, 1, [anon_sym_SLASH_SLASH]), (ACTIONS 5, 1,
       [anon_sym_SLASH_STAR]), (ACTIONS 7, 1, [anon_sym_SLASH_SLASH_SLASH]), (ACTIONS 9, 1,
       [sym__block_comment]), (ACTIONS 11, 1, [sym__documentation_block_comment]), (ACTIONS 4833,
       1, [anon_sym_LBRACE]), (ACTIONS 4835, 1, [anon_sym_EQ_GT]), (ACTIONS 4837, 1,
       [anon_sym_async]), (STATE 446, 1, [sym_block]), (STATE 1953, 1, [sym_function_body]),
       (ACTIONS 4839, 2, [anon_sym_async_STAR, anon_sym_sync_STAR]), (STATE 2403, 2,
       [sym_comment, sym_documentation_comment])]),
     (122484, 8, [(ACTIONS 3, 1, [anon_sym_SLASH_SLASH]), (ACTIONS 5, 1,
       [anon_sym_SLASH_STAR]), (ACTIONS 7, 1, [anon_sym_SLASH_SLASH_SLASH]), (ACTIONS 9, 1,
       [sym__block_comment]), (ACTIONS 11, 1, [sym__documentation_block_comment]), (ACTIONS 3026,
       1, [anon_sym_QMARK]), (STATE 2404, 2, [sym_comment, sym_documentation_comment]), (ACTIONS
       3024, 6, [anon_sym_LBRACK, anon_sym_LPAREN, anon_sym_LT, anon_sym_BANG, anon_sym_DOT,
       anon_sym_QMARK_DOT])]),
     (122515, 8, [(ACTIONS 3, 1, [anon_sym_SLASH_SLASH]), (ACTIONS 5, 1,
       [anon_sym_SLASH_STAR]), (ACTIONS 7, 1, [anon_sym_SLASH_SLASH_SLASH]), (ACTIONS 9, 1,
       [sym__block_comment]), (ACTIONS 11, 1, [sym__documentation_block_comment]), (ACTIONS 2824,
       1, [anon_sym_QMARK]), (STATE 2405, 2, [sym_comment, sym_documentation_comment]), (ACTIONS
       2822, 6, [anon_sym_LBRACK, anon_sym_LPAREN, anon_sym_LT, anon_sym_BANG, anon_sym_DOT,
       anon_sym_QMARK_DOT])]),
     (122546, 9, [(ACTIONS 3, 1, [anon_sym_SLASH_SLASH]), (ACTIONS 5, 1,
       [anon_sym_SLASH_STAR]), (ACTIONS 7, 1, [anon_sym_SLASH_SLASH_SLASH]), (ACTIONS 9, 1,
       [sym__block_comment]), (ACTIONS 11, 1, [sym__documentation_block_comment]), (ACTIONS 5325,
       1, [anon_sym_EQ]), (ACTIONS 5327, 1, [anon_sym_async]), (STATE 2406, 2, [sym_comment,
       sym_documentation_comment]), (ACTIONS 5323, 5, [anon_sym_LBRACE, anon_sym_EQ_GT,
       anon_sym_async_STAR, anon_sym_sync_STAR, anon_sym_native])]),
     (122579, 10, [(ACTIONS 3, 1, [anon_sym_SLASH_SLASH]), (ACTIONS 5, 1,
       [anon_sym_SLASH_STAR]), (ACTIONS 7, 1, [anon_sym_SLASH_SLASH_SLASH]), (ACTIONS 9, 1,
       [sym__block_comment]), (ACTIONS 11, 1, [sym__documentation_block_comment]), (ACTIONS 2154,
       1, [anon_sym_QMARK]), (STATE 2556, 1, [sym_nullable_type]), (ACTIONS 2541, 2,
       [anon_sym_LPAREN, anon_sym_DOT]), (STATE 2407, 2, [sym_comment,
       sym_documentation_comment]), (ACTIONS 4089, 3, [anon_sym_this, anon_sym_super,
       sym_identifier])])]"

lemma small_run_815: "small_run 2402 122414 ts_small_parse_table_815 2408 122614"
  by (simp add: small_simps ts_small_parse_table_815_def)

definition ts_small_parse_table_816 :: "small_group list" where
  "ts_small_parse_table_816 = [
     (122614, 8, [(ACTIONS 3, 1, [anon_sym_SLASH_SLASH]), (ACTIONS 5, 1,
       [anon_sym_SLASH_STAR]), (ACTIONS 7, 1, [anon_sym_SLASH_SLASH_SLASH]), (ACTIONS 9, 1,
       [sym__block_comment]), (ACTIONS 11, 1, [sym__documentation_block_comment]), (ACTIONS 5299,
       1, [anon_sym_SQUOTE]), (STATE 2408, 2, [sym_comment, sym_documentation_comment]), (ACTIONS
       5301, 6, [sym__template_chars_single, sym__template_chars_raw_slash, anon_sym_DQUOTE,
       anon_sym_SQUOTE_SQUOTE_SQUOTE, anon_sym_DOLLAR, sym__unused_escape_sequence])]),
     (122645, 8, [(ACTIONS 3, 1, [anon_sym_SLASH_SLASH]), (ACTIONS 5, 1,
       [anon_sym_SLASH_STAR]), (ACTIONS 7, 1, [anon_sym_SLASH_SLASH_SLASH]), (ACTIONS 9, 1,
       [sym__block_comment]), (ACTIONS 11, 1, [sym__documentation_block_comment]), (ACTIONS 1645,
       1, [anon_sym_QMARK]), (STATE 2409, 2, [sym_comment, sym_documentation_comment]), (ACTIONS
       1643, 6, [anon_sym_LBRACK, anon_sym_LPAREN, anon_sym_LT, anon_sym_BANG, anon_sym_DOT,
       anon_sym_QMARK_DOT])]),
     (122676, 13, [(ACTIONS 3, 1, [anon_sym_SLASH_SLASH]), (ACTIONS 5, 1,
       [anon_sym_SLASH_STAR]), (ACTIONS 7, 1, [anon_sym_SLASH_SLASH_SLASH]), (ACTIONS 9, 1,
       [sym__block_comment]), (ACTIONS 11, 1, [sym__documentation_block_comment]), (ACTIONS 4584,
       1, [anon_sym_with]), (ACTIONS 4586, 1, [anon_sym_implements]), (ACTIONS 4971, 1,
       [anon_sym_LBRACE]), (STATE 1752, 1, [sym_enum_body]), (STATE 2023, 1, [sym__implements]),
       (STATE 2571, 1, [sym_mixins]), (STATE 3193, 1, [sym_interfaces]), (STATE 2410, 2,
       [sym_comment, sym_documentation_comment])]),
     (122717, 13, [(ACTIONS 3, 1, [anon_sym_SLASH_SLASH]), (ACTIONS 5, 1,
       [anon_sym_SLASH_STAR]), (ACTIONS 7, 1, [anon_sym_SLASH_SLASH_SLASH]), (ACTIONS 9, 1,
       [sym__block_comment]), (ACTIONS 11, 1, [sym__documentation_block_comment]), (ACTIONS 3511,
       1, [anon_sym_LT]), (ACTIONS 4278, 1, [anon_sym_LPAREN]), (ACTIONS 5329, 1,
       [sym_identifier]), (STATE 2016, 1, [sym__strict_formal_parameter_list]), (STATE 2020, 1,
       [sym_formal_parameter_list]), (STATE 2311, 1, [sym__formal_parameter_part]), (STATE 2932,
       1, [sym_type_parameters]), (STATE 2411, 2, [sym_comment, sym_documentation_comment])]),
     (122758, 8, [(ACTIONS 3, 1, [anon_sym_SLASH_SLASH]), (ACTIONS 5, 1,
       [anon_sym_SLASH_STAR]), (ACTIONS 7, 1, [anon_sym_SLASH_SLASH_SLASH]), (ACTIONS 9, 1,
       [sym__block_comment]), (ACTIONS 11, 1, [sym__documentation_block_comment]), (ACTIONS 2942,
       1, [anon_sym_QMARK]), (STATE 2412, 2, [sym_comment, sym_documentation_comment]), (ACTIONS
       2940, 6, [anon_sym_LBRACK, anon_sym_LPAREN, anon_sym_LT, anon_sym_BANG, anon_sym_DOT,
       anon_sym_QMARK_DOT])]),
     (122789, 8, [(ACTIONS 3, 1, [anon_sym_SLASH_SLASH]), (ACTIONS 5, 1,
       [anon_sym_SLASH_STAR]), (ACTIONS 7, 1, [anon_sym_SLASH_SLASH_SLASH]), (ACTIONS 9, 1,
       [sym__block_comment]), (ACTIONS 11, 1, [sym__documentation_block_comment]), (ACTIONS 2882,
       1, [anon_sym_QMARK]), (STATE 2413, 2, [sym_comment, sym_documentation_comment]), (ACTIONS
       2880, 6, [anon_sym_LBRACK, anon_sym_LPAREN, anon_sym_LT, anon_sym_BANG, anon_sym_DOT,
       anon_sym_QMARK_DOT])])]"

lemma small_run_816: "small_run 2408 122614 ts_small_parse_table_816 2414 122820"
  by (simp add: small_simps ts_small_parse_table_816_def)

definition ts_small_parse_table_817 :: "small_group list" where
  "ts_small_parse_table_817 = [
     (122820, 8, [(ACTIONS 3, 1, [anon_sym_SLASH_SLASH]), (ACTIONS 5, 1,
       [anon_sym_SLASH_STAR]), (ACTIONS 7, 1, [anon_sym_SLASH_SLASH_SLASH]), (ACTIONS 9, 1,
       [sym__block_comment]), (ACTIONS 11, 1, [sym__documentation_block_comment]), (ACTIONS 1670,
       1, [anon_sym_QMARK]), (STATE 2414, 2, [sym_comment, sym_documentation_comment]), (ACTIONS
       1668, 6, [anon_sym_LBRACK, anon_sym_LPAREN, anon_sym_LT, anon_sym_BANG, anon_sym_DOT,
       anon_sym_QMARK_DOT])]),
     (122851, 8, [(ACTIONS 3, 1, [anon_sym_SLASH_SLASH]), (ACTIONS 5, 1,
       [anon_sym_SLASH_STAR]), (ACTIONS 7, 1, [anon_sym_SLASH_SLASH_SLASH]), (ACTIONS 9, 1,
       [sym__block_comment]), (ACTIONS 11, 1, [sym__documentation_block_comment]), (ACTIONS 2930,
       1, [anon_sym_QMARK]), (STATE 2415, 2, [sym_comment, sym_documentation_comment]), (ACTIONS
       2928, 6, [anon_sym_LBRACK, anon_sym_LPAREN, anon_sym_LT, anon_sym_BANG, anon_sym_DOT,
       anon_sym_QMARK_DOT])]),
     (122882, 8, [(ACTIONS 3, 1, [anon_sym_SLASH_SLASH]), (ACTIONS 5, 1,
       [anon_sym_SLASH_STAR]), (ACTIONS 7, 1, [anon_sym_SLASH_SLASH_SLASH]), (ACTIONS 9, 1,
       [sym__block_comment]), (ACTIONS 11, 1, [sym__documentation_block_comment]), (ACTIONS 3084,
       1, [anon_sym_QMARK]), (STATE 2416, 2, [sym_comment, sym_documentation_comment]), (ACTIONS
       3082, 6, [anon_sym_LBRACK, anon_sym_LPAREN, anon_sym_LT, anon_sym_BANG, anon_sym_DOT,
       anon_sym_QMARK_DOT])]),
     (122913, 12, [(ACTIONS 3, 1, [anon_sym_SLASH_SLASH]), (ACTIONS 5, 1,
       [anon_sym_SLASH_STAR]), (ACTIONS 7, 1, [anon_sym_SLASH_SLASH_SLASH]), (ACTIONS 9, 1,
       [sym__block_comment]), (ACTIONS 11, 1, [sym__documentation_block_comment]), (ACTIONS 4833,
       1, [anon_sym_LBRACE]), (ACTIONS 4835, 1, [anon_sym_EQ_GT]), (ACTIONS 4837, 1,
       [anon_sym_async]), (STATE 446, 1, [sym_block]), (STATE 1954, 1, [sym_function_body]),
       (ACTIONS 4839, 2, [anon_sym_async_STAR, anon_sym_sync_STAR]), (STATE 2417, 2,
       [sym_comment, sym_documentation_comment])]),
     (122952, 10, [(ACTIONS 3, 1, [anon_sym_SLASH_SLASH]), (ACTIONS 5, 1,
       [anon_sym_SLASH_STAR]), (ACTIONS 7, 1, [anon_sym_SLASH_SLASH_SLASH]), (ACTIONS 9, 1,
       [sym__block_comment]), (ACTIONS 11, 1, [sym__documentation_block_comment]), (ACTIONS 4793,
       1, [anon_sym_async]), (ACTIONS 5331, 1, [anon_sym_native]), (STATE 3314, 1,
       [sym__native]), (STATE 2418, 2, [sym_comment, sym_documentation_comment]), (ACTIONS 4787,
       4, [anon_sym_LBRACE, anon_sym_EQ_GT, anon_sym_async_STAR, anon_sym_sync_STAR])]),
     (122987, 13, [(ACTIONS 3, 1, [anon_sym_SLASH_SLASH]), (ACTIONS 5, 1,
       [anon_sym_SLASH_STAR]), (ACTIONS 7, 1, [anon_sym_SLASH_SLASH_SLASH]), (ACTIONS 9, 1,
       [sym__block_comment]), (ACTIONS 11, 1, [sym__documentation_block_comment]), (ACTIONS 47,
       1, [anon_sym_get]), (ACTIONS 61, 1, [anon_sym_set]), (ACTIONS 5280, 1, [sym_identifier]),
       (STATE 2372, 1, [sym__get]), (STATE 2378, 1, [sym__set]), (STATE 2991, 1,
       [sym_initialized_identifier]), (STATE 3264, 1, [sym_initialized_identifier_list]), (STATE
       2419, 2, [sym_comment, sym_documentation_comment])])]"

lemma small_run_817: "small_run 2414 122820 ts_small_parse_table_817 2420 123028"
  by (simp add: small_simps ts_small_parse_table_817_def)

definition ts_small_parse_table_part_8 :: "small_group list" where
  "ts_small_parse_table_part_8 =
     ts_small_parse_table_736 @ ts_small_parse_table_737 @ ts_small_parse_table_738 @
     ts_small_parse_table_739 @ ts_small_parse_table_740 @ ts_small_parse_table_741 @
     ts_small_parse_table_742 @ ts_small_parse_table_743 @ ts_small_parse_table_744 @
     ts_small_parse_table_745 @ ts_small_parse_table_746 @ ts_small_parse_table_747 @
     ts_small_parse_table_748 @ ts_small_parse_table_749 @ ts_small_parse_table_750 @
     ts_small_parse_table_751 @ ts_small_parse_table_752 @ ts_small_parse_table_753 @
     ts_small_parse_table_754 @ ts_small_parse_table_755 @ ts_small_parse_table_756 @
     ts_small_parse_table_757 @ ts_small_parse_table_758 @ ts_small_parse_table_759 @
     ts_small_parse_table_760 @ ts_small_parse_table_761 @ ts_small_parse_table_762 @
     ts_small_parse_table_763 @ ts_small_parse_table_764 @ ts_small_parse_table_765 @
     ts_small_parse_table_766 @ ts_small_parse_table_767 @ ts_small_parse_table_768 @
     ts_small_parse_table_769 @ ts_small_parse_table_770 @ ts_small_parse_table_771 @
     ts_small_parse_table_772 @ ts_small_parse_table_773 @ ts_small_parse_table_774 @
     ts_small_parse_table_775 @ ts_small_parse_table_776 @ ts_small_parse_table_777 @
     ts_small_parse_table_778 @ ts_small_parse_table_779 @ ts_small_parse_table_780 @
     ts_small_parse_table_781 @ ts_small_parse_table_782 @ ts_small_parse_table_783 @
     ts_small_parse_table_784 @ ts_small_parse_table_785 @ ts_small_parse_table_786 @
     ts_small_parse_table_787 @ ts_small_parse_table_788 @ ts_small_parse_table_789 @
     ts_small_parse_table_790 @ ts_small_parse_table_791 @ ts_small_parse_table_792 @
     ts_small_parse_table_793 @ ts_small_parse_table_794 @ ts_small_parse_table_795 @
     ts_small_parse_table_796 @ ts_small_parse_table_797 @ ts_small_parse_table_798 @
     ts_small_parse_table_799 @ ts_small_parse_table_800 @ ts_small_parse_table_801 @
     ts_small_parse_table_802 @ ts_small_parse_table_803 @ ts_small_parse_table_804 @
     ts_small_parse_table_805 @ ts_small_parse_table_806 @ ts_small_parse_table_807 @
     ts_small_parse_table_808 @ ts_small_parse_table_809 @ ts_small_parse_table_810 @
     ts_small_parse_table_811 @ ts_small_parse_table_812 @ ts_small_parse_table_813 @
     ts_small_parse_table_814 @ ts_small_parse_table_815 @ ts_small_parse_table_816 @
     ts_small_parse_table_817"

lemma small_part_8: "small_run 2038 107457 ts_small_parse_table_part_8 2420 123028"
  unfolding ts_small_parse_table_part_8_def
  by (rule small_run_append [OF small_run_736], rule small_run_append [OF small_run_737],
    rule small_run_append [OF small_run_738], rule small_run_append [OF small_run_739],
    rule small_run_append [OF small_run_740], rule small_run_append [OF small_run_741],
    rule small_run_append [OF small_run_742], rule small_run_append [OF small_run_743],
    rule small_run_append [OF small_run_744], rule small_run_append [OF small_run_745],
    rule small_run_append [OF small_run_746], rule small_run_append [OF small_run_747],
    rule small_run_append [OF small_run_748], rule small_run_append [OF small_run_749],
    rule small_run_append [OF small_run_750], rule small_run_append [OF small_run_751],
    rule small_run_append [OF small_run_752], rule small_run_append [OF small_run_753],
    rule small_run_append [OF small_run_754], rule small_run_append [OF small_run_755],
    rule small_run_append [OF small_run_756], rule small_run_append [OF small_run_757],
    rule small_run_append [OF small_run_758], rule small_run_append [OF small_run_759],
    rule small_run_append [OF small_run_760], rule small_run_append [OF small_run_761],
    rule small_run_append [OF small_run_762], rule small_run_append [OF small_run_763],
    rule small_run_append [OF small_run_764], rule small_run_append [OF small_run_765],
    rule small_run_append [OF small_run_766], rule small_run_append [OF small_run_767],
    rule small_run_append [OF small_run_768], rule small_run_append [OF small_run_769],
    rule small_run_append [OF small_run_770], rule small_run_append [OF small_run_771],
    rule small_run_append [OF small_run_772], rule small_run_append [OF small_run_773],
    rule small_run_append [OF small_run_774], rule small_run_append [OF small_run_775],
    rule small_run_append [OF small_run_776], rule small_run_append [OF small_run_777],
    rule small_run_append [OF small_run_778], rule small_run_append [OF small_run_779],
    rule small_run_append [OF small_run_780], rule small_run_append [OF small_run_781],
    rule small_run_append [OF small_run_782], rule small_run_append [OF small_run_783],
    rule small_run_append [OF small_run_784], rule small_run_append [OF small_run_785],
    rule small_run_append [OF small_run_786], rule small_run_append [OF small_run_787],
    rule small_run_append [OF small_run_788], rule small_run_append [OF small_run_789],
    rule small_run_append [OF small_run_790], rule small_run_append [OF small_run_791],
    rule small_run_append [OF small_run_792], rule small_run_append [OF small_run_793],
    rule small_run_append [OF small_run_794], rule small_run_append [OF small_run_795],
    rule small_run_append [OF small_run_796], rule small_run_append [OF small_run_797],
    rule small_run_append [OF small_run_798], rule small_run_append [OF small_run_799],
    rule small_run_append [OF small_run_800], rule small_run_append [OF small_run_801],
    rule small_run_append [OF small_run_802], rule small_run_append [OF small_run_803],
    rule small_run_append [OF small_run_804], rule small_run_append [OF small_run_805],
    rule small_run_append [OF small_run_806], rule small_run_append [OF small_run_807],
    rule small_run_append [OF small_run_808], rule small_run_append [OF small_run_809],
    rule small_run_append [OF small_run_810], rule small_run_append [OF small_run_811],
    rule small_run_append [OF small_run_812], rule small_run_append [OF small_run_813],
    rule small_run_append [OF small_run_814], rule small_run_append [OF small_run_815],
    rule small_run_append [OF small_run_816], rule small_run_817)

end
