(* ===== verification/Dart_Small_9.thy ===== *)
theory Dart_Small_9
  imports Dart_Items
begin

text \<open>
  The groups of \<^verbatim>\<open>ts_small_parse_table\<close> for the states 2420 to 2935, in blocks of at most 150 lines of
  the source, each with the check of its layout and of its entries.
\<close>

definition ts_small_parse_table_818 :: "small_group list" where
  "ts_small_parse_table_818 = [
     (123028, 11, [(ACTIONS 3, 1, [anon_sym_SLASH_SLASH]), (ACTIONS 5, 1,
       [anon_sym_SLASH_STAR]), (ACTIONS 7, 1, [anon_sym_SLASH_SLASH_SLASH]), (ACTIONS 9, 1,
       [sym__block_comment]), (ACTIONS 11, 1, [sym__documentation_block_comment]), (ACTIONS 3692,
       1, [anon_sym_DOT]), (ACTIONS 5333, 1, [anon_sym_EQ]), (STATE 1612, 1,
       [sym__type_dot_identifier]), (ACTIONS 1320, 2, [anon_sym_Function, sym_identifier]),
       (ACTIONS 2015, 2, [anon_sym_QMARK, anon_sym_LT]), (STATE 2420, 2, [sym_comment,
       sym_documentation_comment])]),
     (123065, 12, [(ACTIONS 3, 1, [anon_sym_SLASH_SLASH]), (ACTIONS 5, 1,
       [anon_sym_SLASH_STAR]), (ACTIONS 7, 1, [anon_sym_SLASH_SLASH_SLASH]), (ACTIONS 9, 1,
       [sym__block_comment]), (ACTIONS 11, 1, [sym__documentation_block_comment]), (ACTIONS 2154,
       1, [anon_sym_QMARK]), (ACTIONS 3161, 1, [anon_sym_LT]), (ACTIONS 4422, 1,
       [anon_sym_LPAREN]), (STATE 1718, 1, [sym_nullable_type]), (STATE 2431, 1,
       [sym_type_arguments]), (ACTIONS 2539, 2, [anon_sym_Function, sym_identifier]), (STATE
       2421, 2, [sym_comment, sym_documentation_comment])]),
     (123104, 12, [(ACTIONS 3, 1, [anon_sym_SLASH_SLASH]), (ACTIONS 5, 1,
       [anon_sym_SLASH_STAR]), (ACTIONS 7, 1, [anon_sym_SLASH_SLASH_SLASH]), (ACTIONS 9, 1,
       [sym__block_comment]), (ACTIONS 11, 1, [sym__documentation_block_comment]), (ACTIONS 4833,
       1, [anon_sym_LBRACE]), (ACTIONS 4835, 1, [anon_sym_EQ_GT]), (ACTIONS 4837, 1,
       [anon_sym_async]), (STATE 446, 1, [sym_block]), (STATE 1947, 1, [sym_function_body]),
       (ACTIONS 4839, 2, [anon_sym_async_STAR, anon_sym_sync_STAR]), (STATE 2422, 2,
       [sym_comment, sym_documentation_comment])]),
     (123143, 8, [(ACTIONS 3, 1, [anon_sym_SLASH_SLASH]), (ACTIONS 5, 1,
       [anon_sym_SLASH_STAR]), (ACTIONS 7, 1, [anon_sym_SLASH_SLASH_SLASH]), (ACTIONS 9, 1,
       [sym__block_comment]), (ACTIONS 11, 1, [sym__documentation_block_comment]), (ACTIONS 1659,
       1, [anon_sym_QMARK]), (STATE 2423, 2, [sym_comment, sym_documentation_comment]), (ACTIONS
       1657, 6, [anon_sym_LBRACK, anon_sym_LPAREN, anon_sym_LT, anon_sym_BANG, anon_sym_DOT,
       anon_sym_QMARK_DOT])]),
     (123174, 11, [(ACTIONS 3, 1, [anon_sym_SLASH_SLASH]), (ACTIONS 5, 1,
       [anon_sym_SLASH_STAR]), (ACTIONS 7, 1, [anon_sym_SLASH_SLASH_SLASH]), (ACTIONS 9, 1,
       [sym__block_comment]), (ACTIONS 11, 1, [sym__documentation_block_comment]), (ACTIONS 45,
       1, [anon_sym_Function]), (STATE 1704, 1, [sym__function_type_tail]), (STATE 2141, 1,
       [sym__function_builtin_identifier]), (STATE 2174, 1, [aux_sym__function_type_tails]),
       (STATE 2424, 2, [sym_comment, sym_documentation_comment]), (ACTIONS 4089, 3,
       [anon_sym_this, anon_sym_super, sym_identifier])])]"

lemma small_run_818: "small_run 2420 123028 ts_small_parse_table_818 2425 123211"
  by (simp add: small_simps ts_small_parse_table_818_def)

definition ts_small_parse_table_819 :: "small_group list" where
  "ts_small_parse_table_819 = [
     (123211, 9, [(ACTIONS 3, 1, [anon_sym_SLASH_SLASH]), (ACTIONS 9, 1, [sym__block_comment]),
       (ACTIONS 11, 1, [sym__documentation_block_comment]), (ACTIONS 5165, 1,
       [anon_sym_SLASH_STAR]), (ACTIONS 5167, 1, [anon_sym_SLASH_SLASH_SLASH]), (ACTIONS 5337, 1,
       [aux_sym__sub_string_test_token1]), (STATE 2425, 2, [sym_comment,
       sym_documentation_comment]), (ACTIONS 5335, 3, [anon_sym_DQUOTE, anon_sym_SQUOTE,
       anon_sym_DOLLAR]), (ACTIONS 5339, 3, [sym__template_chars_single_single,
       sym__template_chars_raw_slash, sym__unused_escape_sequence])]),
     (123244, 12, [(ACTIONS 3, 1, [anon_sym_SLASH_SLASH]), (ACTIONS 5, 1,
       [anon_sym_SLASH_STAR]), (ACTIONS 7, 1, [anon_sym_SLASH_SLASH_SLASH]), (ACTIONS 9, 1,
       [sym__block_comment]), (ACTIONS 11, 1, [sym__documentation_block_comment]), (ACTIONS 4833,
       1, [anon_sym_LBRACE]), (ACTIONS 5341, 1, [anon_sym_EQ_GT]), (ACTIONS 5343, 1,
       [anon_sym_async]), (STATE 2384, 1, [sym_block]), (STATE 2427, 1,
       [sym_function_expression_body]), (ACTIONS 5345, 2, [anon_sym_async_STAR,
       anon_sym_sync_STAR]), (STATE 2426, 2, [sym_comment, sym_documentation_comment])]),
     (123283, 8, [(ACTIONS 3, 1, [anon_sym_SLASH_SLASH]), (ACTIONS 5, 1,
       [anon_sym_SLASH_STAR]), (ACTIONS 7, 1, [anon_sym_SLASH_SLASH_SLASH]), (ACTIONS 9, 1,
       [sym__block_comment]), (ACTIONS 11, 1, [sym__documentation_block_comment]), (ACTIONS 3010,
       1, [anon_sym_QMARK]), (STATE 2427, 2, [sym_comment, sym_documentation_comment]), (ACTIONS
       3008, 6, [anon_sym_LBRACK, anon_sym_LPAREN, anon_sym_LT, anon_sym_BANG, anon_sym_DOT,
       anon_sym_QMARK_DOT])]),
     (123314, 8, [(ACTIONS 3, 1, [anon_sym_SLASH_SLASH]), (ACTIONS 5, 1,
       [anon_sym_SLASH_STAR]), (ACTIONS 7, 1, [anon_sym_SLASH_SLASH_SLASH]), (ACTIONS 9, 1,
       [sym__block_comment]), (ACTIONS 11, 1, [sym__documentation_block_comment]), (ACTIONS 2966,
       1, [anon_sym_QMARK]), (STATE 2428, 2, [sym_comment, sym_documentation_comment]), (ACTIONS
       2964, 6, [anon_sym_LBRACK, anon_sym_LPAREN, anon_sym_LT, anon_sym_BANG, anon_sym_DOT,
       anon_sym_QMARK_DOT])]),
     (123345, 8, [(ACTIONS 3, 1, [anon_sym_SLASH_SLASH]), (ACTIONS 5, 1,
       [anon_sym_SLASH_STAR]), (ACTIONS 7, 1, [anon_sym_SLASH_SLASH_SLASH]), (ACTIONS 9, 1,
       [sym__block_comment]), (ACTIONS 11, 1, [sym__documentation_block_comment]), (ACTIONS 5349,
       1, [anon_sym_async]), (STATE 2429, 2, [sym_comment, sym_documentation_comment]), (ACTIONS
       5347, 6, [anon_sym_LBRACE, anon_sym_COMMA, anon_sym_SEMI, anon_sym_EQ_GT,
       anon_sym_async_STAR, anon_sym_sync_STAR])]),
     (123376, 8, [(ACTIONS 3, 1, [anon_sym_SLASH_SLASH]), (ACTIONS 5, 1,
       [anon_sym_SLASH_STAR]), (ACTIONS 7, 1, [anon_sym_SLASH_SLASH_SLASH]), (ACTIONS 9, 1,
       [sym__block_comment]), (ACTIONS 11, 1, [sym__documentation_block_comment]), (ACTIONS 5117,
       1, [anon_sym_async]), (STATE 2430, 2, [sym_comment, sym_documentation_comment]), (ACTIONS
       5112, 6, [anon_sym_LBRACE, anon_sym_COMMA, anon_sym_SEMI, anon_sym_EQ_GT,
       anon_sym_async_STAR, anon_sym_sync_STAR])])]"

lemma small_run_819: "small_run 2425 123211 ts_small_parse_table_819 2431 123407"
  by (simp add: small_simps ts_small_parse_table_819_def)

definition ts_small_parse_table_820 :: "small_group list" where
  "ts_small_parse_table_820 = [
     (123407, 11, [(ACTIONS 3, 1, [anon_sym_SLASH_SLASH]), (ACTIONS 5, 1,
       [anon_sym_SLASH_STAR]), (ACTIONS 7, 1, [anon_sym_SLASH_SLASH_SLASH]), (ACTIONS 9, 1,
       [sym__block_comment]), (ACTIONS 11, 1, [sym__documentation_block_comment]), (ACTIONS 2154,
       1, [anon_sym_QMARK]), (ACTIONS 4606, 1, [anon_sym_LPAREN]), (STATE 1721, 1,
       [sym_nullable_type]), (ACTIONS 2550, 2, [anon_sym_COMMA, anon_sym_RPAREN]), (ACTIONS 2555,
       2, [anon_sym_Function, sym_identifier]), (STATE 2431, 2, [sym_comment,
       sym_documentation_comment])]),
     (123444, 8, [(ACTIONS 3, 1, [anon_sym_SLASH_SLASH]), (ACTIONS 5, 1,
       [anon_sym_SLASH_STAR]), (ACTIONS 7, 1, [anon_sym_SLASH_SLASH_SLASH]), (ACTIONS 9, 1,
       [sym__block_comment]), (ACTIONS 11, 1, [sym__documentation_block_comment]), (ACTIONS 984,
       1, [anon_sym_QMARK]), (STATE 2432, 2, [sym_comment, sym_documentation_comment]), (ACTIONS
       980, 6, [anon_sym_LBRACK, anon_sym_LPAREN, anon_sym_LT, anon_sym_BANG, anon_sym_DOT,
       anon_sym_QMARK_DOT])]),
     (123475, 13, [(ACTIONS 3, 1, [anon_sym_SLASH_SLASH]), (ACTIONS 5, 1,
       [anon_sym_SLASH_STAR]), (ACTIONS 7, 1, [anon_sym_SLASH_SLASH_SLASH]), (ACTIONS 9, 1,
       [sym__block_comment]), (ACTIONS 11, 1, [sym__documentation_block_comment]), (ACTIONS 47,
       1, [anon_sym_get]), (ACTIONS 61, 1, [anon_sym_set]), (ACTIONS 5280, 1, [sym_identifier]),
       (STATE 2372, 1, [sym__get]), (STATE 2378, 1, [sym__set]), (STATE 2991, 1,
       [sym_initialized_identifier]), (STATE 3104, 1, [sym_initialized_identifier_list]), (STATE
       2433, 2, [sym_comment, sym_documentation_comment])]),
     (123516, 9, [(ACTIONS 3, 1, [anon_sym_SLASH_SLASH]), (ACTIONS 9, 1, [sym__block_comment]),
       (ACTIONS 11, 1, [sym__documentation_block_comment]), (ACTIONS 5165, 1,
       [anon_sym_SLASH_STAR]), (ACTIONS 5167, 1, [anon_sym_SLASH_SLASH_SLASH]), (ACTIONS 5353, 1,
       [aux_sym__sub_string_test_token1]), (STATE 2434, 2, [sym_comment,
       sym_documentation_comment]), (ACTIONS 5351, 3, [anon_sym_DQUOTE, anon_sym_SQUOTE,
       anon_sym_DOLLAR]), (ACTIONS 5355, 3, [sym__template_chars_double_single,
       sym__template_chars_raw_slash, sym__unused_escape_sequence])]),
     (123549, 8, [(ACTIONS 3, 1, [anon_sym_SLASH_SLASH]), (ACTIONS 5, 1,
       [anon_sym_SLASH_STAR]), (ACTIONS 7, 1, [anon_sym_SLASH_SLASH_SLASH]), (ACTIONS 9, 1,
       [sym__block_comment]), (ACTIONS 11, 1, [sym__documentation_block_comment]), (ACTIONS 2970,
       1, [anon_sym_QMARK]), (STATE 2435, 2, [sym_comment, sym_documentation_comment]), (ACTIONS
       2968, 6, [anon_sym_LBRACK, anon_sym_LPAREN, anon_sym_LT, anon_sym_BANG, anon_sym_DOT,
       anon_sym_QMARK_DOT])])]"

lemma small_run_820: "small_run 2431 123407 ts_small_parse_table_820 2436 123580"
  by (simp add: small_simps ts_small_parse_table_820_def)

definition ts_small_parse_table_821 :: "small_group list" where
  "ts_small_parse_table_821 = [
     (123580, 13, [(ACTIONS 3, 1, [anon_sym_SLASH_SLASH]), (ACTIONS 5, 1,
       [anon_sym_SLASH_STAR]), (ACTIONS 7, 1, [anon_sym_SLASH_SLASH_SLASH]), (ACTIONS 9, 1,
       [sym__block_comment]), (ACTIONS 11, 1, [sym__documentation_block_comment]), (ACTIONS 4584,
       1, [anon_sym_with]), (ACTIONS 4586, 1, [anon_sym_implements]), (ACTIONS 4971, 1,
       [anon_sym_LBRACE]), (STATE 1775, 1, [sym_enum_body]), (STATE 2023, 1, [sym__implements]),
       (STATE 2550, 1, [sym_mixins]), (STATE 3042, 1, [sym_interfaces]), (STATE 2436, 2,
       [sym_comment, sym_documentation_comment])]),
     (123621, 13, [(ACTIONS 3, 1, [anon_sym_SLASH_SLASH]), (ACTIONS 5, 1,
       [anon_sym_SLASH_STAR]), (ACTIONS 7, 1, [anon_sym_SLASH_SLASH_SLASH]), (ACTIONS 9, 1,
       [sym__block_comment]), (ACTIONS 11, 1, [sym__documentation_block_comment]), (ACTIONS 47,
       1, [anon_sym_get]), (ACTIONS 61, 1, [anon_sym_set]), (ACTIONS 1709, 1,
       [anon_sym_operator]), (ACTIONS 5357, 1, [sym_identifier]), (STATE 1509, 1,
       [sym__operator]), (STATE 2372, 1, [sym__get]), (STATE 2378, 1, [sym__set]), (STATE 2437,
       2, [sym_comment, sym_documentation_comment])]),
     (123662, 8, [(ACTIONS 3, 1, [anon_sym_SLASH_SLASH]), (ACTIONS 5, 1,
       [anon_sym_SLASH_STAR]), (ACTIONS 7, 1, [anon_sym_SLASH_SLASH_SLASH]), (ACTIONS 9, 1,
       [sym__block_comment]), (ACTIONS 11, 1, [sym__documentation_block_comment]), (ACTIONS 1663,
       1, [anon_sym_QMARK]), (STATE 2438, 2, [sym_comment, sym_documentation_comment]), (ACTIONS
       1661, 6, [anon_sym_LBRACK, anon_sym_LPAREN, anon_sym_LT, anon_sym_BANG, anon_sym_DOT,
       anon_sym_QMARK_DOT])]),
     (123693, 7, [(ACTIONS 3, 1, [anon_sym_SLASH_SLASH]), (ACTIONS 5, 1,
       [anon_sym_SLASH_STAR]), (ACTIONS 7, 1, [anon_sym_SLASH_SLASH_SLASH]), (ACTIONS 9, 1,
       [sym__block_comment]), (ACTIONS 11, 1, [sym__documentation_block_comment]), (STATE 2439,
       2, [sym_comment, sym_documentation_comment]), (ACTIONS 5339, 6,
       [sym__template_chars_single_single, sym__template_chars_raw_slash, anon_sym_DQUOTE,
       anon_sym_SQUOTE, anon_sym_DOLLAR, sym__unused_escape_sequence])]),
     (123721, 12, [(ACTIONS 3, 1, [anon_sym_SLASH_SLASH]), (ACTIONS 5, 1,
       [anon_sym_SLASH_STAR]), (ACTIONS 7, 1, [anon_sym_SLASH_SLASH_SLASH]), (ACTIONS 9, 1,
       [sym__block_comment]), (ACTIONS 11, 1, [sym__documentation_block_comment]), (ACTIONS 143,
       1, [anon_sym_AT]), (ACTIONS 5098, 1, [sym_identifier]), (STATE 1308, 1,
       [aux_sym__metadata_repeat1]), (STATE 1361, 1, [sym_annotation]), (STATE 2631, 1,
       [sym_enum_constant]), (STATE 3537, 1, [sym__metadata]), (STATE 2440, 2, [sym_comment,
       sym_documentation_comment])]),
     (123759, 8, [(ACTIONS 3, 1, [anon_sym_SLASH_SLASH]), (ACTIONS 5, 1,
       [anon_sym_SLASH_STAR]), (ACTIONS 7, 1, [anon_sym_SLASH_SLASH_SLASH]), (ACTIONS 9, 1,
       [sym__block_comment]), (ACTIONS 11, 1, [sym__documentation_block_comment]), (ACTIONS 5362,
       1, [anon_sym_SQUOTE]), (STATE 2441, 2, [sym_comment, sym_documentation_comment]), (ACTIONS
       5360, 5, [sym__template_chars_single, anon_sym_DQUOTE, anon_sym_SQUOTE_SQUOTE_SQUOTE,
       anon_sym_DOLLAR, sym__unused_escape_sequence])])]"

lemma small_run_821: "small_run 2436 123580 ts_small_parse_table_821 2442 123789"
  by (simp add: small_simps ts_small_parse_table_821_def)

definition ts_small_parse_table_822 :: "small_group list" where
  "ts_small_parse_table_822 = [
     (123789, 12, [(ACTIONS 3, 1, [anon_sym_SLASH_SLASH]), (ACTIONS 5, 1,
       [anon_sym_SLASH_STAR]), (ACTIONS 7, 1, [anon_sym_SLASH_SLASH_SLASH]), (ACTIONS 9, 1,
       [sym__block_comment]), (ACTIONS 11, 1, [sym__documentation_block_comment]), (ACTIONS 3511,
       1, [anon_sym_LT]), (ACTIONS 4278, 1, [anon_sym_LPAREN]), (STATE 2016, 1,
       [sym__strict_formal_parameter_list]), (STATE 2020, 1, [sym_formal_parameter_list]), (STATE
       2289, 1, [sym__formal_parameter_part]), (STATE 2932, 1, [sym_type_parameters]), (STATE
       2442, 2, [sym_comment, sym_documentation_comment])]),
     (123827, 11, [(ACTIONS 3, 1, [anon_sym_SLASH_SLASH]), (ACTIONS 5, 1,
       [anon_sym_SLASH_STAR]), (ACTIONS 7, 1, [anon_sym_SLASH_SLASH_SLASH]), (ACTIONS 9, 1,
       [sym__block_comment]), (ACTIONS 11, 1, [sym__documentation_block_comment]), (ACTIONS 5193,
       1, [anon_sym_SEMI]), (STATE 1598, 1, [sym__semicolon]), (STATE 2535, 1,
       [aux_sym_library_export_repeat1]), (STATE 2733, 1, [sym_combinator]), (ACTIONS 5195, 2,
       [anon_sym_show, anon_sym_hide]), (STATE 2443, 2, [sym_comment,
       sym_documentation_comment])]),
     (123863, 11, [(ACTIONS 3, 1, [anon_sym_SLASH_SLASH]), (ACTIONS 5, 1,
       [anon_sym_SLASH_STAR]), (ACTIONS 7, 1, [anon_sym_SLASH_SLASH_SLASH]), (ACTIONS 9, 1,
       [sym__block_comment]), (ACTIONS 11, 1, [sym__documentation_block_comment]), (ACTIONS 2154,
       1, [anon_sym_QMARK]), (ACTIONS 4739, 1, [anon_sym_extends]), (STATE 2647, 1,
       [sym_nullable_type]), (STATE 3131, 1, [sym_type_bound]), (ACTIONS 5364, 2,
       [anon_sym_COMMA, anon_sym_GT]), (STATE 2444, 2, [sym_comment,
       sym_documentation_comment])]),
     (123899, 7, [(ACTIONS 3, 1, [anon_sym_SLASH_SLASH]), (ACTIONS 5, 1,
       [anon_sym_SLASH_STAR]), (ACTIONS 7, 1, [anon_sym_SLASH_SLASH_SLASH]), (ACTIONS 9, 1,
       [sym__block_comment]), (ACTIONS 11, 1, [sym__documentation_block_comment]), (STATE 2445,
       2, [sym_comment, sym_documentation_comment]), (ACTIONS 5171, 6, [anon_sym_RBRACE,
       anon_sym_COMMA, anon_sym_RBRACK, anon_sym_COLON, anon_sym_RPAREN, anon_sym_EQ])]),
     (123927, 8, [(ACTIONS 3, 1, [anon_sym_SLASH_SLASH]), (ACTIONS 5, 1,
       [anon_sym_SLASH_STAR]), (ACTIONS 7, 1, [anon_sym_SLASH_SLASH_SLASH]), (ACTIONS 9, 1,
       [sym__block_comment]), (ACTIONS 11, 1, [sym__documentation_block_comment]), (ACTIONS 5368,
       1, [anon_sym_async]), (STATE 2446, 2, [sym_comment, sym_documentation_comment]), (ACTIONS
       5366, 5, [anon_sym_LBRACE, anon_sym_SEMI, anon_sym_EQ_GT, anon_sym_async_STAR,
       anon_sym_sync_STAR])]),
     (123957, 7, [(ACTIONS 3, 1, [anon_sym_SLASH_SLASH]), (ACTIONS 5, 1,
       [anon_sym_SLASH_STAR]), (ACTIONS 7, 1, [anon_sym_SLASH_SLASH_SLASH]), (ACTIONS 9, 1,
       [sym__block_comment]), (ACTIONS 11, 1, [sym__documentation_block_comment]), (STATE 2447,
       2, [sym_comment, sym_documentation_comment]), (ACTIONS 4596, 6, [anon_sym_RBRACE,
       anon_sym_COMMA, anon_sym_RBRACK, anon_sym_COLON, anon_sym_RPAREN, anon_sym_EQ])])]"

lemma small_run_822: "small_run 2442 123789 ts_small_parse_table_822 2448 123985"
  by (simp add: small_simps ts_small_parse_table_822_def)

definition ts_small_parse_table_823 :: "small_group list" where
  "ts_small_parse_table_823 = [
     (123985, 7, [(ACTIONS 3, 1, [anon_sym_SLASH_SLASH]), (ACTIONS 5, 1,
       [anon_sym_SLASH_STAR]), (ACTIONS 7, 1, [anon_sym_SLASH_SLASH_SLASH]), (ACTIONS 9, 1,
       [sym__block_comment]), (ACTIONS 11, 1, [sym__documentation_block_comment]), (STATE 2448,
       2, [sym_comment, sym_documentation_comment]), (ACTIONS 5355, 6,
       [sym__template_chars_double_single, sym__template_chars_raw_slash, anon_sym_DQUOTE,
       anon_sym_SQUOTE, anon_sym_DOLLAR, sym__unused_escape_sequence])]),
     (124013, 8, [(ACTIONS 3, 1, [anon_sym_SLASH_SLASH]), (ACTIONS 5, 1,
       [anon_sym_SLASH_STAR]), (ACTIONS 7, 1, [anon_sym_SLASH_SLASH_SLASH]), (ACTIONS 9, 1,
       [sym__block_comment]), (ACTIONS 11, 1, [sym__documentation_block_comment]), (ACTIONS 5372,
       1, [anon_sym_SQUOTE]), (STATE 2449, 2, [sym_comment, sym_documentation_comment]), (ACTIONS
       5370, 5, [sym__template_chars_single, anon_sym_DQUOTE, anon_sym_SQUOTE_SQUOTE_SQUOTE,
       anon_sym_DOLLAR, sym__unused_escape_sequence])]),
     (124043, 12, [(ACTIONS 3, 1, [anon_sym_SLASH_SLASH]), (ACTIONS 5, 1,
       [anon_sym_SLASH_STAR]), (ACTIONS 7, 1, [anon_sym_SLASH_SLASH_SLASH]), (ACTIONS 9, 1,
       [sym__block_comment]), (ACTIONS 11, 1, [sym__documentation_block_comment]), (ACTIONS 2419,
       1, [anon_sym_LBRACK]), (ACTIONS 5374, 1, [sym_identifier]), (ACTIONS 5376, 1,
       [anon_sym_QMARK]), (STATE 759, 1, [sym_cascade_selector]), (STATE 1126, 1,
       [sym_index_selector]), (STATE 3009, 1, [sym_nullable_selector]), (STATE 2450, 2,
       [sym_comment, sym_documentation_comment])]),
     (124081, 9, [(ACTIONS 3, 1, [anon_sym_SLASH_SLASH]), (ACTIONS 5, 1,
       [anon_sym_SLASH_STAR]), (ACTIONS 7, 1, [anon_sym_SLASH_SLASH_SLASH]), (ACTIONS 9, 1,
       [sym__block_comment]), (ACTIONS 11, 1, [sym__documentation_block_comment]), (ACTIONS 4791,
       1, [anon_sym_SEMI]), (ACTIONS 4793, 1, [anon_sym_async]), (STATE 2451, 2, [sym_comment,
       sym_documentation_comment]), (ACTIONS 4787, 4, [anon_sym_LBRACE, anon_sym_EQ_GT,
       anon_sym_async_STAR, anon_sym_sync_STAR])]),
     (124113, 12, [(ACTIONS 3, 1, [anon_sym_SLASH_SLASH]), (ACTIONS 5, 1,
       [anon_sym_SLASH_STAR]), (ACTIONS 7, 1, [anon_sym_SLASH_SLASH_SLASH]), (ACTIONS 9, 1,
       [sym__block_comment]), (ACTIONS 11, 1, [sym__documentation_block_comment]), (ACTIONS 4578,
       1, [anon_sym_LBRACE]), (ACTIONS 4586, 1, [anon_sym_implements]), (ACTIONS 5378, 1,
       [anon_sym_on]), (STATE 1761, 1, [sym_class_body]), (STATE 2023, 1, [sym__implements]),
       (STATE 3166, 1, [sym_interfaces]), (STATE 2452, 2, [sym_comment,
       sym_documentation_comment])]),
     (124151, 8, [(ACTIONS 3, 1, [anon_sym_SLASH_SLASH]), (ACTIONS 5, 1,
       [anon_sym_SLASH_STAR]), (ACTIONS 7, 1, [anon_sym_SLASH_SLASH_SLASH]), (ACTIONS 9, 1,
       [sym__block_comment]), (ACTIONS 11, 1, [sym__documentation_block_comment]), (ACTIONS 5380,
       1, [anon_sym_DQUOTE]), (STATE 2453, 2, [sym_comment, sym_documentation_comment]), (ACTIONS
       5382, 5, [sym__template_chars_double, anon_sym_SQUOTE, anon_sym_DQUOTE_DQUOTE_DQUOTE,
       anon_sym_DOLLAR, sym__unused_escape_sequence])])]"

lemma small_run_823: "small_run 2448 123985 ts_small_parse_table_823 2454 124181"
  by (simp add: small_simps ts_small_parse_table_823_def)

definition ts_small_parse_table_824 :: "small_group list" where
  "ts_small_parse_table_824 = [
     (124181, 7, [(ACTIONS 3, 1, [anon_sym_SLASH_SLASH]), (ACTIONS 5, 1,
       [anon_sym_SLASH_STAR]), (ACTIONS 7, 1, [anon_sym_SLASH_SLASH_SLASH]), (ACTIONS 9, 1,
       [sym__block_comment]), (ACTIONS 11, 1, [sym__documentation_block_comment]), (STATE 2454,
       2, [sym_comment, sym_documentation_comment]), (ACTIONS 4604, 6, [anon_sym_RBRACE,
       anon_sym_COMMA, anon_sym_RBRACK, anon_sym_COLON, anon_sym_RPAREN, anon_sym_EQ])]),
     (124209, 10, [(ACTIONS 3, 1, [anon_sym_SLASH_SLASH]), (ACTIONS 5, 1,
       [anon_sym_SLASH_STAR]), (ACTIONS 7, 1, [anon_sym_SLASH_SLASH_SLASH]), (ACTIONS 9, 1,
       [sym__block_comment]), (ACTIONS 11, 1, [sym__documentation_block_comment]), (ACTIONS 119,
       1, [anon_sym_BANG]), (ACTIONS 5386, 1, [anon_sym_LPAREN]), (STATE 2640, 1,
       [sym__exclamation_operator]), (STATE 2455, 2, [sym_comment, sym_documentation_comment]),
       (ACTIONS 5384, 3, [sym_void_type, anon_sym_Function, sym_identifier])]),
     (124243, 11, [(ACTIONS 3, 1, [anon_sym_SLASH_SLASH]), (ACTIONS 5, 1,
       [anon_sym_SLASH_STAR]), (ACTIONS 7, 1, [anon_sym_SLASH_SLASH_SLASH]), (ACTIONS 9, 1,
       [sym__block_comment]), (ACTIONS 11, 1, [sym__documentation_block_comment]), (ACTIONS 2154,
       1, [anon_sym_QMARK]), (ACTIONS 4739, 1, [anon_sym_extends]), (STATE 2653, 1,
       [sym_nullable_type]), (STATE 3028, 1, [sym_type_bound]), (ACTIONS 5388, 2,
       [anon_sym_COMMA, anon_sym_GT]), (STATE 2456, 2, [sym_comment,
       sym_documentation_comment])]),
     (124279, 7, [(ACTIONS 3, 1, [anon_sym_SLASH_SLASH]), (ACTIONS 5, 1,
       [anon_sym_SLASH_STAR]), (ACTIONS 7, 1, [anon_sym_SLASH_SLASH_SLASH]), (ACTIONS 9, 1,
       [sym__block_comment]), (ACTIONS 11, 1, [sym__documentation_block_comment]), (STATE 2457,
       2, [sym_comment, sym_documentation_comment]), (ACTIONS 5390, 6, [anon_sym_as,
       anon_sym_SEMI, anon_sym_if, anon_sym_show, anon_sym_hide, anon_sym_deferred])]),
     (124307, 8, [(ACTIONS 3, 1, [anon_sym_SLASH_SLASH]), (ACTIONS 5, 1,
       [anon_sym_SLASH_STAR]), (ACTIONS 7, 1, [anon_sym_SLASH_SLASH_SLASH]), (ACTIONS 9, 1,
       [sym__block_comment]), (ACTIONS 11, 1, [sym__documentation_block_comment]), (ACTIONS 5394,
       1, [anon_sym_async]), (STATE 2458, 2, [sym_comment, sym_documentation_comment]), (ACTIONS
       5392, 5, [anon_sym_LBRACE, anon_sym_SEMI, anon_sym_EQ_GT, anon_sym_async_STAR,
       anon_sym_sync_STAR])]),
     (124337, 8, [(ACTIONS 3, 1, [anon_sym_SLASH_SLASH]), (ACTIONS 5, 1,
       [anon_sym_SLASH_STAR]), (ACTIONS 7, 1, [anon_sym_SLASH_SLASH_SLASH]), (ACTIONS 9, 1,
       [sym__block_comment]), (ACTIONS 11, 1, [sym__documentation_block_comment]), (ACTIONS 5398,
       1, [anon_sym_async]), (STATE 2459, 2, [sym_comment, sym_documentation_comment]), (ACTIONS
       5396, 5, [anon_sym_LBRACE, anon_sym_SEMI, anon_sym_EQ_GT, anon_sym_async_STAR,
       anon_sym_sync_STAR])])]"

lemma small_run_824: "small_run 2454 124181 ts_small_parse_table_824 2460 124367"
  by (simp add: small_simps ts_small_parse_table_824_def)

definition ts_small_parse_table_825 :: "small_group list" where
  "ts_small_parse_table_825 = [
     (124367, 8, [(ACTIONS 3, 1, [anon_sym_SLASH_SLASH]), (ACTIONS 5, 1,
       [anon_sym_SLASH_STAR]), (ACTIONS 7, 1, [anon_sym_SLASH_SLASH_SLASH]), (ACTIONS 9, 1,
       [sym__block_comment]), (ACTIONS 11, 1, [sym__documentation_block_comment]), (ACTIONS 5402,
       1, [anon_sym_async]), (STATE 2460, 2, [sym_comment, sym_documentation_comment]), (ACTIONS
       5400, 5, [anon_sym_LBRACE, anon_sym_SEMI, anon_sym_EQ_GT, anon_sym_async_STAR,
       anon_sym_sync_STAR])]),
     (124397, 12, [(ACTIONS 3, 1, [anon_sym_SLASH_SLASH]), (ACTIONS 5, 1,
       [anon_sym_SLASH_STAR]), (ACTIONS 7, 1, [anon_sym_SLASH_SLASH_SLASH]), (ACTIONS 9, 1,
       [sym__block_comment]), (ACTIONS 11, 1, [sym__documentation_block_comment]), (ACTIONS 3511,
       1, [anon_sym_LT]), (ACTIONS 4278, 1, [anon_sym_LPAREN]), (STATE 2016, 1,
       [sym__strict_formal_parameter_list]), (STATE 2020, 1, [sym_formal_parameter_list]), (STATE
       2305, 1, [sym__formal_parameter_part]), (STATE 2932, 1, [sym_type_parameters]), (STATE
       2461, 2, [sym_comment, sym_documentation_comment])]),
     (124435, 12, [(ACTIONS 3, 1, [anon_sym_SLASH_SLASH]), (ACTIONS 5, 1,
       [anon_sym_SLASH_STAR]), (ACTIONS 7, 1, [anon_sym_SLASH_SLASH_SLASH]), (ACTIONS 9, 1,
       [sym__block_comment]), (ACTIONS 11, 1, [sym__documentation_block_comment]), (ACTIONS 3511,
       1, [anon_sym_LT]), (ACTIONS 4278, 1, [anon_sym_LPAREN]), (STATE 2016, 1,
       [sym__strict_formal_parameter_list]), (STATE 2020, 1, [sym_formal_parameter_list]), (STATE
       2845, 1, [sym__formal_parameter_part]), (STATE 2932, 1, [sym_type_parameters]), (STATE
       2462, 2, [sym_comment, sym_documentation_comment])]),
     (124473, 12, [(ACTIONS 3, 1, [anon_sym_SLASH_SLASH]), (ACTIONS 5, 1,
       [anon_sym_SLASH_STAR]), (ACTIONS 7, 1, [anon_sym_SLASH_SLASH_SLASH]), (ACTIONS 9, 1,
       [sym__block_comment]), (ACTIONS 11, 1, [sym__documentation_block_comment]), (ACTIONS 3511,
       1, [anon_sym_LT]), (ACTIONS 4278, 1, [anon_sym_LPAREN]), (STATE 2016, 1,
       [sym__strict_formal_parameter_list]), (STATE 2020, 1, [sym_formal_parameter_list]), (STATE
       2675, 1, [sym__formal_parameter_part]), (STATE 2932, 1, [sym_type_parameters]), (STATE
       2463, 2, [sym_comment, sym_documentation_comment])]),
     (124511, 7, [(ACTIONS 3, 1, [anon_sym_SLASH_SLASH]), (ACTIONS 5, 1,
       [anon_sym_SLASH_STAR]), (ACTIONS 7, 1, [anon_sym_SLASH_SLASH_SLASH]), (ACTIONS 9, 1,
       [sym__block_comment]), (ACTIONS 11, 1, [sym__documentation_block_comment]), (STATE 2464,
       2, [sym_comment, sym_documentation_comment]), (ACTIONS 5404, 6, [anon_sym_RBRACE,
       anon_sym_COMMA, anon_sym_RBRACK, anon_sym_COLON, anon_sym_RPAREN, anon_sym_EQ])]),
     (124539, 7, [(ACTIONS 3, 1, [anon_sym_SLASH_SLASH]), (ACTIONS 5, 1,
       [anon_sym_SLASH_STAR]), (ACTIONS 7, 1, [anon_sym_SLASH_SLASH_SLASH]), (ACTIONS 9, 1,
       [sym__block_comment]), (ACTIONS 11, 1, [sym__documentation_block_comment]), (STATE 2465,
       2, [sym_comment, sym_documentation_comment]), (ACTIONS 5406, 6, [anon_sym_RBRACE,
       anon_sym_COMMA, anon_sym_RBRACK, anon_sym_COLON, anon_sym_RPAREN, anon_sym_EQ])])]"

lemma small_run_825: "small_run 2460 124367 ts_small_parse_table_825 2466 124567"
  by (simp add: small_simps ts_small_parse_table_825_def)

definition ts_small_parse_table_826 :: "small_group list" where
  "ts_small_parse_table_826 = [
     (124567, 7, [(ACTIONS 3, 1, [anon_sym_SLASH_SLASH]), (ACTIONS 5, 1,
       [anon_sym_SLASH_STAR]), (ACTIONS 7, 1, [anon_sym_SLASH_SLASH_SLASH]), (ACTIONS 9, 1,
       [sym__block_comment]), (ACTIONS 11, 1, [sym__documentation_block_comment]), (STATE 2466,
       2, [sym_comment, sym_documentation_comment]), (ACTIONS 5408, 6, [anon_sym_RBRACE,
       anon_sym_COMMA, anon_sym_RBRACK, anon_sym_COLON, anon_sym_RPAREN, anon_sym_EQ])]),
     (124595, 8, [(ACTIONS 3, 1, [anon_sym_SLASH_SLASH]), (ACTIONS 5, 1,
       [anon_sym_SLASH_STAR]), (ACTIONS 7, 1, [anon_sym_SLASH_SLASH_SLASH]), (ACTIONS 9, 1,
       [sym__block_comment]), (ACTIONS 11, 1, [sym__documentation_block_comment]), (ACTIONS 5380,
       1, [anon_sym_SQUOTE]), (STATE 2467, 2, [sym_comment, sym_documentation_comment]), (ACTIONS
       5382, 5, [sym__template_chars_single, anon_sym_DQUOTE, anon_sym_SQUOTE_SQUOTE_SQUOTE,
       anon_sym_DOLLAR, sym__unused_escape_sequence])]),
     (124625, 7, [(ACTIONS 3, 1, [anon_sym_SLASH_SLASH]), (ACTIONS 5, 1,
       [anon_sym_SLASH_STAR]), (ACTIONS 7, 1, [anon_sym_SLASH_SLASH_SLASH]), (ACTIONS 9, 1,
       [sym__block_comment]), (ACTIONS 11, 1, [sym__documentation_block_comment]), (STATE 2468,
       2, [sym_comment, sym_documentation_comment]), (ACTIONS 5410, 6, [anon_sym_RBRACE,
       anon_sym_COMMA, anon_sym_RBRACK, anon_sym_COLON, anon_sym_RPAREN, anon_sym_EQ])]),
     (124653, 12, [(ACTIONS 3, 1, [anon_sym_SLASH_SLASH]), (ACTIONS 5, 1,
       [anon_sym_SLASH_STAR]), (ACTIONS 7, 1, [anon_sym_SLASH_SLASH_SLASH]), (ACTIONS 9, 1,
       [sym__block_comment]), (ACTIONS 11, 1, [sym__documentation_block_comment]), (ACTIONS 3511,
       1, [anon_sym_LT]), (ACTIONS 4278, 1, [anon_sym_LPAREN]), (STATE 2016, 1,
       [sym__strict_formal_parameter_list]), (STATE 2020, 1, [sym_formal_parameter_list]), (STATE
       2841, 1, [sym__formal_parameter_part]), (STATE 2932, 1, [sym_type_parameters]), (STATE
       2469, 2, [sym_comment, sym_documentation_comment])]),
     (124691, 11, [(ACTIONS 3, 1, [anon_sym_SLASH_SLASH]), (ACTIONS 5, 1,
       [anon_sym_SLASH_STAR]), (ACTIONS 7, 1, [anon_sym_SLASH_SLASH_SLASH]), (ACTIONS 9, 1,
       [sym__block_comment]), (ACTIONS 11, 1, [sym__documentation_block_comment]), (ACTIONS 2264,
       1, [anon_sym_LBRACE]), (ACTIONS 2266, 1, [anon_sym_LBRACK]), (ACTIONS 5412, 1,
       [anon_sym_RPAREN]), (STATE 3311, 1, [sym_optional_formal_parameters]), (STATE 2470, 2,
       [sym_comment, sym_documentation_comment]), (STATE 3424, 2,
       [sym__optional_postional_formal_parameters, sym__named_formal_parameters])]),
     (124727, 12, [(ACTIONS 3, 1, [anon_sym_SLASH_SLASH]), (ACTIONS 5, 1,
       [anon_sym_SLASH_STAR]), (ACTIONS 7, 1, [anon_sym_SLASH_SLASH_SLASH]), (ACTIONS 9, 1,
       [sym__block_comment]), (ACTIONS 11, 1, [sym__documentation_block_comment]), (ACTIONS 3511,
       1, [anon_sym_LT]), (ACTIONS 4278, 1, [anon_sym_LPAREN]), (STATE 2016, 1,
       [sym__strict_formal_parameter_list]), (STATE 2020, 1, [sym_formal_parameter_list]), (STATE
       2671, 1, [sym__formal_parameter_part]), (STATE 2932, 1, [sym_type_parameters]), (STATE
       2471, 2, [sym_comment, sym_documentation_comment])])]"

lemma small_run_826: "small_run 2466 124567 ts_small_parse_table_826 2472 124765"
  by (simp add: small_simps ts_small_parse_table_826_def)

definition ts_small_parse_table_827 :: "small_group list" where
  "ts_small_parse_table_827 = [
     (124765, 12, [(ACTIONS 3, 1, [anon_sym_SLASH_SLASH]), (ACTIONS 5, 1,
       [anon_sym_SLASH_STAR]), (ACTIONS 7, 1, [anon_sym_SLASH_SLASH_SLASH]), (ACTIONS 9, 1,
       [sym__block_comment]), (ACTIONS 11, 1, [sym__documentation_block_comment]), (ACTIONS 3511,
       1, [anon_sym_LT]), (ACTIONS 4278, 1, [anon_sym_LPAREN]), (STATE 2016, 1,
       [sym__strict_formal_parameter_list]), (STATE 2020, 1, [sym_formal_parameter_list]), (STATE
       2288, 1, [sym__formal_parameter_part]), (STATE 2932, 1, [sym_type_parameters]), (STATE
       2472, 2, [sym_comment, sym_documentation_comment])]),
     (124803, 12, [(ACTIONS 3, 1, [anon_sym_SLASH_SLASH]), (ACTIONS 5, 1,
       [anon_sym_SLASH_STAR]), (ACTIONS 7, 1, [anon_sym_SLASH_SLASH_SLASH]), (ACTIONS 9, 1,
       [sym__block_comment]), (ACTIONS 11, 1, [sym__documentation_block_comment]), (ACTIONS 3511,
       1, [anon_sym_LT]), (ACTIONS 4278, 1, [anon_sym_LPAREN]), (STATE 2016, 1,
       [sym__strict_formal_parameter_list]), (STATE 2020, 1, [sym_formal_parameter_list]), (STATE
       2884, 1, [sym__formal_parameter_part]), (STATE 2932, 1, [sym_type_parameters]), (STATE
       2473, 2, [sym_comment, sym_documentation_comment])]),
     (124841, 12, [(ACTIONS 3, 1, [anon_sym_SLASH_SLASH]), (ACTIONS 5, 1,
       [anon_sym_SLASH_STAR]), (ACTIONS 7, 1, [anon_sym_SLASH_SLASH_SLASH]), (ACTIONS 9, 1,
       [sym__block_comment]), (ACTIONS 11, 1, [sym__documentation_block_comment]), (ACTIONS 3511,
       1, [anon_sym_LT]), (ACTIONS 4278, 1, [anon_sym_LPAREN]), (STATE 2016, 1,
       [sym__strict_formal_parameter_list]), (STATE 2020, 1, [sym_formal_parameter_list]), (STATE
       2331, 1, [sym__formal_parameter_part]), (STATE 2932, 1, [sym_type_parameters]), (STATE
       2474, 2, [sym_comment, sym_documentation_comment])]),
     (124879, 7, [(ACTIONS 3, 1, [anon_sym_SLASH_SLASH]), (ACTIONS 5, 1,
       [anon_sym_SLASH_STAR]), (ACTIONS 7, 1, [anon_sym_SLASH_SLASH_SLASH]), (ACTIONS 9, 1,
       [sym__block_comment]), (ACTIONS 11, 1, [sym__documentation_block_comment]), (STATE 2475,
       2, [sym_comment, sym_documentation_comment]), (ACTIONS 5104, 6, [anon_sym_RBRACE,
       anon_sym_COMMA, anon_sym_RBRACK, anon_sym_COLON, anon_sym_RPAREN, anon_sym_EQ])]),
     (124907, 12, [(ACTIONS 3, 1, [anon_sym_SLASH_SLASH]), (ACTIONS 5, 1,
       [anon_sym_SLASH_STAR]), (ACTIONS 7, 1, [anon_sym_SLASH_SLASH_SLASH]), (ACTIONS 9, 1,
       [sym__block_comment]), (ACTIONS 11, 1, [sym__documentation_block_comment]), (ACTIONS 892,
       1, [anon_sym_case]), (ACTIONS 4745, 1, [sym_identifier]), (ACTIONS 5414, 1,
       [anon_sym_default]), (STATE 416, 1, [sym_case_builtin]), (STATE 2529, 1,
       [aux_sym_switch_statement_case_repeat1]), (STATE 2691, 1, [sym_label]), (STATE 2476, 2,
       [sym_comment, sym_documentation_comment])]),
     (124945, 11, [(ACTIONS 3, 1, [anon_sym_SLASH_SLASH]), (ACTIONS 5, 1,
       [anon_sym_SLASH_STAR]), (ACTIONS 7, 1, [anon_sym_SLASH_SLASH_SLASH]), (ACTIONS 9, 1,
       [sym__block_comment]), (ACTIONS 11, 1, [sym__documentation_block_comment]), (ACTIONS 5193,
       1, [anon_sym_SEMI]), (STATE 1613, 1, [sym__semicolon]), (STATE 2535, 1,
       [aux_sym_library_export_repeat1]), (STATE 2733, 1, [sym_combinator]), (ACTIONS 5195, 2,
       [anon_sym_show, anon_sym_hide]), (STATE 2477, 2, [sym_comment,
       sym_documentation_comment])])]"

lemma small_run_827: "small_run 2472 124765 ts_small_parse_table_827 2478 124981"
  by (simp add: small_simps ts_small_parse_table_827_def)

definition ts_small_parse_table_828 :: "small_group list" where
  "ts_small_parse_table_828 = [
     (124981, 7, [(ACTIONS 3, 1, [anon_sym_SLASH_SLASH]), (ACTIONS 5, 1,
       [anon_sym_SLASH_STAR]), (ACTIONS 7, 1, [anon_sym_SLASH_SLASH_SLASH]), (ACTIONS 9, 1,
       [sym__block_comment]), (ACTIONS 11, 1, [sym__documentation_block_comment]), (STATE 2478,
       2, [sym_comment, sym_documentation_comment]), (ACTIONS 5416, 6, [anon_sym_RBRACE,
       anon_sym_COMMA, anon_sym_RBRACK, anon_sym_COLON, anon_sym_RPAREN, anon_sym_EQ])]),
     (125009, 12, [(ACTIONS 3, 1, [anon_sym_SLASH_SLASH]), (ACTIONS 5, 1,
       [anon_sym_SLASH_STAR]), (ACTIONS 7, 1, [anon_sym_SLASH_SLASH_SLASH]), (ACTIONS 9, 1,
       [sym__block_comment]), (ACTIONS 11, 1, [sym__documentation_block_comment]), (ACTIONS 2419,
       1, [anon_sym_LBRACK]), (ACTIONS 5374, 1, [sym_identifier]), (ACTIONS 5376, 1,
       [anon_sym_QMARK]), (STATE 830, 1, [sym_cascade_selector]), (STATE 1126, 1,
       [sym_index_selector]), (STATE 3009, 1, [sym_nullable_selector]), (STATE 2479, 2,
       [sym_comment, sym_documentation_comment])]),
     (125047, 7, [(ACTIONS 3, 1, [anon_sym_SLASH_SLASH]), (ACTIONS 5, 1,
       [anon_sym_SLASH_STAR]), (ACTIONS 7, 1, [anon_sym_SLASH_SLASH_SLASH]), (ACTIONS 9, 1,
       [sym__block_comment]), (ACTIONS 11, 1, [sym__documentation_block_comment]), (STATE 2480,
       2, [sym_comment, sym_documentation_comment]), (ACTIONS 5418, 6, [anon_sym_RBRACE,
       anon_sym_COMMA, anon_sym_RBRACK, anon_sym_COLON, anon_sym_RPAREN, anon_sym_EQ])]),
     (125075, 8, [(ACTIONS 3, 1, [anon_sym_SLASH_SLASH]), (ACTIONS 5, 1,
       [anon_sym_SLASH_STAR]), (ACTIONS 7, 1, [anon_sym_SLASH_SLASH_SLASH]), (ACTIONS 9, 1,
       [sym__block_comment]), (ACTIONS 11, 1, [sym__documentation_block_comment]), (ACTIONS 5422,
       1, [anon_sym_LPAREN]), (STATE 2481, 2, [sym_comment, sym_documentation_comment]), (ACTIONS
       5420, 5, [anon_sym_final, sym_void_type, anon_sym_var, anon_sym_Function,
       sym_identifier])]),
     (125105, 12, [(ACTIONS 3, 1, [anon_sym_SLASH_SLASH]), (ACTIONS 5, 1,
       [anon_sym_SLASH_STAR]), (ACTIONS 7, 1, [anon_sym_SLASH_SLASH_SLASH]), (ACTIONS 9, 1,
       [sym__block_comment]), (ACTIONS 11, 1, [sym__documentation_block_comment]), (ACTIONS 4578,
       1, [anon_sym_LBRACE]), (ACTIONS 4586, 1, [anon_sym_implements]), (ACTIONS 5177, 1,
       [anon_sym_on]), (STATE 1793, 1, [sym_class_body]), (STATE 2023, 1, [sym__implements]),
       (STATE 3185, 1, [sym_interfaces]), (STATE 2482, 2, [sym_comment,
       sym_documentation_comment])]),
     (125143, 12, [(ACTIONS 3, 1, [anon_sym_SLASH_SLASH]), (ACTIONS 5, 1,
       [anon_sym_SLASH_STAR]), (ACTIONS 7, 1, [anon_sym_SLASH_SLASH_SLASH]), (ACTIONS 9, 1,
       [sym__block_comment]), (ACTIONS 11, 1, [sym__documentation_block_comment]), (ACTIONS 3511,
       1, [anon_sym_LT]), (ACTIONS 4278, 1, [anon_sym_LPAREN]), (STATE 2016, 1,
       [sym__strict_formal_parameter_list]), (STATE 2020, 1, [sym_formal_parameter_list]), (STATE
       2932, 1, [sym_type_parameters]), (STATE 3399, 1, [sym__formal_parameter_part]), (STATE
       2483, 2, [sym_comment, sym_documentation_comment])])]"

lemma small_run_828: "small_run 2478 124981 ts_small_parse_table_828 2484 125181"
  by (simp add: small_simps ts_small_parse_table_828_def)

definition ts_small_parse_table_829 :: "small_group list" where
  "ts_small_parse_table_829 = [
     (125181, 11, [(ACTIONS 3, 1, [anon_sym_SLASH_SLASH]), (ACTIONS 5, 1,
       [anon_sym_SLASH_STAR]), (ACTIONS 7, 1, [anon_sym_SLASH_SLASH_SLASH]), (ACTIONS 9, 1,
       [sym__block_comment]), (ACTIONS 11, 1, [sym__documentation_block_comment]), (ACTIONS 5193,
       1, [anon_sym_SEMI]), (STATE 1555, 1, [sym__semicolon]), (STATE 2535, 1,
       [aux_sym_library_export_repeat1]), (STATE 2733, 1, [sym_combinator]), (ACTIONS 5195, 2,
       [anon_sym_show, anon_sym_hide]), (STATE 2484, 2, [sym_comment,
       sym_documentation_comment])]),
     (125217, 12, [(ACTIONS 3, 1, [anon_sym_SLASH_SLASH]), (ACTIONS 5, 1,
       [anon_sym_SLASH_STAR]), (ACTIONS 7, 1, [anon_sym_SLASH_SLASH_SLASH]), (ACTIONS 9, 1,
       [sym__block_comment]), (ACTIONS 11, 1, [sym__documentation_block_comment]), (ACTIONS 3511,
       1, [anon_sym_LT]), (ACTIONS 4278, 1, [anon_sym_LPAREN]), (STATE 2016, 1,
       [sym__strict_formal_parameter_list]), (STATE 2020, 1, [sym_formal_parameter_list]), (STATE
       2932, 1, [sym_type_parameters]), (STATE 3502, 1, [sym__formal_parameter_part]), (STATE
       2485, 2, [sym_comment, sym_documentation_comment])]),
     (125255, 12, [(ACTIONS 3, 1, [anon_sym_SLASH_SLASH]), (ACTIONS 5, 1,
       [anon_sym_SLASH_STAR]), (ACTIONS 7, 1, [anon_sym_SLASH_SLASH_SLASH]), (ACTIONS 9, 1,
       [sym__block_comment]), (ACTIONS 11, 1, [sym__documentation_block_comment]), (ACTIONS 2419,
       1, [anon_sym_LBRACK]), (ACTIONS 5374, 1, [sym_identifier]), (ACTIONS 5376, 1,
       [anon_sym_QMARK]), (STATE 1126, 1, [sym_index_selector]), (STATE 1215, 1,
       [sym_cascade_selector]), (STATE 3009, 1, [sym_nullable_selector]), (STATE 2486, 2,
       [sym_comment, sym_documentation_comment])]),
     (125293, 8, [(ACTIONS 3, 1, [anon_sym_SLASH_SLASH]), (ACTIONS 5, 1,
       [anon_sym_SLASH_STAR]), (ACTIONS 7, 1, [anon_sym_SLASH_SLASH_SLASH]), (ACTIONS 9, 1,
       [sym__block_comment]), (ACTIONS 11, 1, [sym__documentation_block_comment]), (ACTIONS 5362,
       1, [anon_sym_DQUOTE]), (STATE 2487, 2, [sym_comment, sym_documentation_comment]), (ACTIONS
       5360, 5, [sym__template_chars_double, anon_sym_SQUOTE, anon_sym_DQUOTE_DQUOTE_DQUOTE,
       anon_sym_DOLLAR, sym__unused_escape_sequence])]),
     (125323, 7, [(ACTIONS 3, 1, [anon_sym_SLASH_SLASH]), (ACTIONS 5, 1,
       [anon_sym_SLASH_STAR]), (ACTIONS 7, 1, [anon_sym_SLASH_SLASH_SLASH]), (ACTIONS 9, 1,
       [sym__block_comment]), (ACTIONS 11, 1, [sym__documentation_block_comment]), (STATE 2488,
       2, [sym_comment, sym_documentation_comment]), (ACTIONS 5424, 6, [anon_sym_final,
       anon_sym_inline, anon_sym_class, anon_sym_interface, anon_sym_base, anon_sym_mixin])]),
     (125351, 12, [(ACTIONS 3, 1, [anon_sym_SLASH_SLASH]), (ACTIONS 5, 1,
       [anon_sym_SLASH_STAR]), (ACTIONS 7, 1, [anon_sym_SLASH_SLASH_SLASH]), (ACTIONS 9, 1,
       [sym__block_comment]), (ACTIONS 11, 1, [sym__documentation_block_comment]), (ACTIONS 4578,
       1, [anon_sym_LBRACE]), (ACTIONS 4586, 1, [anon_sym_implements]), (ACTIONS 5169, 1,
       [anon_sym_on]), (STATE 1768, 1, [sym_class_body]), (STATE 2023, 1, [sym__implements]),
       (STATE 3075, 1, [sym_interfaces]), (STATE 2489, 2, [sym_comment,
       sym_documentation_comment])])]"

lemma small_run_829: "small_run 2484 125181 ts_small_parse_table_829 2490 125389"
  by (simp add: small_simps ts_small_parse_table_829_def)

definition ts_small_parse_table_830 :: "small_group list" where
  "ts_small_parse_table_830 = [
     (125389, 11, [(ACTIONS 3, 1, [anon_sym_SLASH_SLASH]), (ACTIONS 5, 1,
       [anon_sym_SLASH_STAR]), (ACTIONS 7, 1, [anon_sym_SLASH_SLASH_SLASH]), (ACTIONS 9, 1,
       [sym__block_comment]), (ACTIONS 11, 1, [sym__documentation_block_comment]), (ACTIONS 5193,
       1, [anon_sym_SEMI]), (STATE 1584, 1, [sym__semicolon]), (STATE 2535, 1,
       [aux_sym_library_export_repeat1]), (STATE 2733, 1, [sym_combinator]), (ACTIONS 5195, 2,
       [anon_sym_show, anon_sym_hide]), (STATE 2490, 2, [sym_comment,
       sym_documentation_comment])]),
     (125425, 11, [(ACTIONS 3, 1, [anon_sym_SLASH_SLASH]), (ACTIONS 5, 1,
       [anon_sym_SLASH_STAR]), (ACTIONS 7, 1, [anon_sym_SLASH_SLASH_SLASH]), (ACTIONS 9, 1,
       [sym__block_comment]), (ACTIONS 11, 1, [sym__documentation_block_comment]), (ACTIONS 5193,
       1, [anon_sym_SEMI]), (STATE 1567, 1, [sym__semicolon]), (STATE 2484, 1,
       [aux_sym_library_export_repeat1]), (STATE 2733, 1, [sym_combinator]), (ACTIONS 5195, 2,
       [anon_sym_show, anon_sym_hide]), (STATE 2491, 2, [sym_comment,
       sym_documentation_comment])]),
     (125461, 8, [(ACTIONS 3, 1, [anon_sym_SLASH_SLASH]), (ACTIONS 5, 1,
       [anon_sym_SLASH_STAR]), (ACTIONS 7, 1, [anon_sym_SLASH_SLASH_SLASH]), (ACTIONS 9, 1,
       [sym__block_comment]), (ACTIONS 11, 1, [sym__documentation_block_comment]), (ACTIONS 5428,
       1, [anon_sym_async]), (STATE 2492, 2, [sym_comment, sym_documentation_comment]), (ACTIONS
       5426, 5, [anon_sym_LBRACE, anon_sym_SEMI, anon_sym_EQ_GT, anon_sym_async_STAR,
       anon_sym_sync_STAR])]),
     (125491, 8, [(ACTIONS 3, 1, [anon_sym_SLASH_SLASH]), (ACTIONS 5, 1,
       [anon_sym_SLASH_STAR]), (ACTIONS 7, 1, [anon_sym_SLASH_SLASH_SLASH]), (ACTIONS 9, 1,
       [sym__block_comment]), (ACTIONS 11, 1, [sym__documentation_block_comment]), (ACTIONS 5432,
       1, [anon_sym_async]), (STATE 2493, 2, [sym_comment, sym_documentation_comment]), (ACTIONS
       5430, 5, [anon_sym_LBRACE, anon_sym_SEMI, anon_sym_EQ_GT, anon_sym_async_STAR,
       anon_sym_sync_STAR])]),
     (125521, 12, [(ACTIONS 3, 1, [anon_sym_SLASH_SLASH]), (ACTIONS 5, 1,
       [anon_sym_SLASH_STAR]), (ACTIONS 7, 1, [anon_sym_SLASH_SLASH_SLASH]), (ACTIONS 9, 1,
       [sym__block_comment]), (ACTIONS 11, 1, [sym__documentation_block_comment]), (ACTIONS 3511,
       1, [anon_sym_LT]), (ACTIONS 4278, 1, [anon_sym_LPAREN]), (STATE 2016, 1,
       [sym__strict_formal_parameter_list]), (STATE 2020, 1, [sym_formal_parameter_list]), (STATE
       2325, 1, [sym__formal_parameter_part]), (STATE 2932, 1, [sym_type_parameters]), (STATE
       2494, 2, [sym_comment, sym_documentation_comment])]),
     (125559, 8, [(ACTIONS 3, 1, [anon_sym_SLASH_SLASH]), (ACTIONS 5, 1,
       [anon_sym_SLASH_STAR]), (ACTIONS 7, 1, [anon_sym_SLASH_SLASH_SLASH]), (ACTIONS 9, 1,
       [sym__block_comment]), (ACTIONS 11, 1, [sym__documentation_block_comment]), (ACTIONS 5434,
       1, [anon_sym_DQUOTE]), (STATE 2495, 2, [sym_comment, sym_documentation_comment]), (ACTIONS
       5436, 5, [sym__template_chars_double, anon_sym_SQUOTE, anon_sym_DQUOTE_DQUOTE_DQUOTE,
       anon_sym_DOLLAR, sym__unused_escape_sequence])])]"

lemma small_run_830: "small_run 2490 125389 ts_small_parse_table_830 2496 125589"
  by (simp add: small_simps ts_small_parse_table_830_def)

definition ts_small_parse_table_831 :: "small_group list" where
  "ts_small_parse_table_831 = [
     (125589, 10, [(ACTIONS 3, 1, [anon_sym_SLASH_SLASH]), (ACTIONS 5, 1,
       [anon_sym_SLASH_STAR]), (ACTIONS 7, 1, [anon_sym_SLASH_SLASH_SLASH]), (ACTIONS 9, 1,
       [sym__block_comment]), (ACTIONS 11, 1, [sym__documentation_block_comment]), (STATE 914, 1,
       [sym_cascade_section]), (STATE 2101, 1, [aux_sym__expression_repeat1]), (ACTIONS 2076, 2,
       [anon_sym_DOT_DOT, anon_sym_QMARK_DOT_DOT]), (ACTIONS 4638, 2, [anon_sym_COMMA,
       anon_sym_SEMI]), (STATE 2496, 2, [sym_comment, sym_documentation_comment])]),
     (125623, 7, [(ACTIONS 3, 1, [anon_sym_SLASH_SLASH]), (ACTIONS 5, 1,
       [anon_sym_SLASH_STAR]), (ACTIONS 7, 1, [anon_sym_SLASH_SLASH_SLASH]), (ACTIONS 9, 1,
       [sym__block_comment]), (ACTIONS 11, 1, [sym__documentation_block_comment]), (STATE 2497,
       2, [sym_comment, sym_documentation_comment]), (ACTIONS 5301, 6,
       [sym__template_chars_single_single, sym__template_chars_raw_slash, anon_sym_DQUOTE,
       anon_sym_SQUOTE, anon_sym_DOLLAR, sym__unused_escape_sequence])]),
     (125651, 8, [(ACTIONS 3, 1, [anon_sym_SLASH_SLASH]), (ACTIONS 5, 1,
       [anon_sym_SLASH_STAR]), (ACTIONS 7, 1, [anon_sym_SLASH_SLASH_SLASH]), (ACTIONS 9, 1,
       [sym__block_comment]), (ACTIONS 11, 1, [sym__documentation_block_comment]), (ACTIONS 5299,
       1, [anon_sym_DQUOTE]), (STATE 2498, 2, [sym_comment, sym_documentation_comment]), (ACTIONS
       5301, 5, [sym__template_chars_double, anon_sym_SQUOTE, anon_sym_DQUOTE_DQUOTE_DQUOTE,
       anon_sym_DOLLAR, sym__unused_escape_sequence])]),
     (125681, 8, [(ACTIONS 3, 1, [anon_sym_SLASH_SLASH]), (ACTIONS 5, 1,
       [anon_sym_SLASH_STAR]), (ACTIONS 7, 1, [anon_sym_SLASH_SLASH_SLASH]), (ACTIONS 9, 1,
       [sym__block_comment]), (ACTIONS 11, 1, [sym__documentation_block_comment]), (ACTIONS 5438,
       1, [anon_sym_DQUOTE]), (STATE 2499, 2, [sym_comment, sym_documentation_comment]), (ACTIONS
       5440, 5, [sym__template_chars_double, anon_sym_SQUOTE, anon_sym_DQUOTE_DQUOTE_DQUOTE,
       anon_sym_DOLLAR, sym__unused_escape_sequence])]),
     (125711, 12, [(ACTIONS 3, 1, [anon_sym_SLASH_SLASH]), (ACTIONS 5, 1,
       [anon_sym_SLASH_STAR]), (ACTIONS 7, 1, [anon_sym_SLASH_SLASH_SLASH]), (ACTIONS 9, 1,
       [sym__block_comment]), (ACTIONS 11, 1, [sym__documentation_block_comment]), (ACTIONS 3511,
       1, [anon_sym_LT]), (ACTIONS 4278, 1, [anon_sym_LPAREN]), (STATE 2016, 1,
       [sym__strict_formal_parameter_list]), (STATE 2020, 1, [sym_formal_parameter_list]), (STATE
       2311, 1, [sym__formal_parameter_part]), (STATE 2932, 1, [sym_type_parameters]), (STATE
       2500, 2, [sym_comment, sym_documentation_comment])]),
     (125749, 12, [(ACTIONS 3, 1, [anon_sym_SLASH_SLASH]), (ACTIONS 5, 1,
       [anon_sym_SLASH_STAR]), (ACTIONS 7, 1, [anon_sym_SLASH_SLASH_SLASH]), (ACTIONS 9, 1,
       [sym__block_comment]), (ACTIONS 11, 1, [sym__documentation_block_comment]), (ACTIONS 5376,
       1, [anon_sym_QMARK]), (ACTIONS 5442, 1, [sym_identifier]), (ACTIONS 5444, 1,
       [anon_sym_LBRACK]), (STATE 466, 1, [sym_cascade_selector]), (STATE 639, 1,
       [sym_index_selector]), (STATE 3110, 1, [sym_nullable_selector]), (STATE 2501, 2,
       [sym_comment, sym_documentation_comment])])]"

lemma small_run_831: "small_run 2496 125589 ts_small_parse_table_831 2502 125787"
  by (simp add: small_simps ts_small_parse_table_831_def)

definition ts_small_parse_table_832 :: "small_group list" where
  "ts_small_parse_table_832 = [
     (125787, 10, [(ACTIONS 3, 1, [anon_sym_SLASH_SLASH]), (ACTIONS 5, 1,
       [anon_sym_SLASH_STAR]), (ACTIONS 7, 1, [anon_sym_SLASH_SLASH_SLASH]), (ACTIONS 9, 1,
       [sym__block_comment]), (ACTIONS 11, 1, [sym__documentation_block_comment]), (STATE 914, 1,
       [sym_cascade_section]), (STATE 2101, 1, [aux_sym__expression_repeat1]), (ACTIONS 2076, 2,
       [anon_sym_DOT_DOT, anon_sym_QMARK_DOT_DOT]), (ACTIONS 4642, 2, [anon_sym_COMMA,
       anon_sym_SEMI]), (STATE 2502, 2, [sym_comment, sym_documentation_comment])]),
     (125821, 10, [(ACTIONS 3, 1, [anon_sym_SLASH_SLASH]), (ACTIONS 5, 1,
       [anon_sym_SLASH_STAR]), (ACTIONS 7, 1, [anon_sym_SLASH_SLASH_SLASH]), (ACTIONS 9, 1,
       [sym__block_comment]), (ACTIONS 11, 1, [sym__documentation_block_comment]), (ACTIONS 474,
       1, [anon_sym_SEMI]), (ACTIONS 5448, 1, [anon_sym_COLON]), (STATE 519, 1,
       [sym__semicolon]), (STATE 2503, 2, [sym_comment, sym_documentation_comment]), (ACTIONS
       5446, 3, [anon_sym_RBRACE, anon_sym_COMMA, anon_sym_else])]),
     (125855, 8, [(ACTIONS 3, 1, [anon_sym_SLASH_SLASH]), (ACTIONS 5, 1,
       [anon_sym_SLASH_STAR]), (ACTIONS 7, 1, [anon_sym_SLASH_SLASH_SLASH]), (ACTIONS 9, 1,
       [sym__block_comment]), (ACTIONS 11, 1, [sym__documentation_block_comment]), (ACTIONS 5452,
       1, [anon_sym_DOT]), (STATE 2504, 3, [sym_comment, sym_documentation_comment,
       aux_sym_factory_constructor_signature_repeat1]), (ACTIONS 5450, 4, [anon_sym_LPAREN,
       anon_sym_RPAREN, anon_sym_SEMI, anon_sym_EQ_EQ])]),
     (125885, 11, [(ACTIONS 3, 1, [anon_sym_SLASH_SLASH]), (ACTIONS 5, 1,
       [anon_sym_SLASH_STAR]), (ACTIONS 7, 1, [anon_sym_SLASH_SLASH_SLASH]), (ACTIONS 9, 1,
       [sym__block_comment]), (ACTIONS 11, 1, [sym__documentation_block_comment]), (ACTIONS 5193,
       1, [anon_sym_SEMI]), (STATE 1604, 1, [sym__semicolon]), (STATE 2522, 1,
       [aux_sym_library_export_repeat1]), (STATE 2733, 1, [sym_combinator]), (ACTIONS 5195, 2,
       [anon_sym_show, anon_sym_hide]), (STATE 2505, 2, [sym_comment,
       sym_documentation_comment])]),
     (125921, 8, [(ACTIONS 3, 1, [anon_sym_SLASH_SLASH]), (ACTIONS 5, 1,
       [anon_sym_SLASH_STAR]), (ACTIONS 7, 1, [anon_sym_SLASH_SLASH_SLASH]), (ACTIONS 9, 1,
       [sym__block_comment]), (ACTIONS 11, 1, [sym__documentation_block_comment]), (ACTIONS 5039,
       1, [anon_sym_async]), (STATE 2506, 2, [sym_comment, sym_documentation_comment]), (ACTIONS
       5037, 5, [anon_sym_LBRACE, anon_sym_SEMI, anon_sym_EQ_GT, anon_sym_async_STAR,
       anon_sym_sync_STAR])]),
     (125951, 10, [(ACTIONS 3, 1, [anon_sym_SLASH_SLASH]), (ACTIONS 5, 1,
       [anon_sym_SLASH_STAR]), (ACTIONS 7, 1, [anon_sym_SLASH_SLASH_SLASH]), (ACTIONS 9, 1,
       [sym__block_comment]), (ACTIONS 11, 1, [sym__documentation_block_comment]), (ACTIONS 4977,
       1, [anon_sym_if]), (STATE 2336, 1, [aux_sym_configurable_uri_repeat1]), (STATE 2543, 1,
       [sym_configuration_uri]), (STATE 2507, 2, [sym_comment, sym_documentation_comment]),
       (ACTIONS 4975, 3, [anon_sym_SEMI, anon_sym_show, anon_sym_hide])])]"

lemma small_run_832: "small_run 2502 125787 ts_small_parse_table_832 2508 125985"
  by (simp add: small_simps ts_small_parse_table_832_def)

definition ts_small_parse_table_833 :: "small_group list" where
  "ts_small_parse_table_833 = [
     (125985, 8, [(ACTIONS 3, 1, [anon_sym_SLASH_SLASH]), (ACTIONS 5, 1,
       [anon_sym_SLASH_STAR]), (ACTIONS 7, 1, [anon_sym_SLASH_SLASH_SLASH]), (ACTIONS 9, 1,
       [sym__block_comment]), (ACTIONS 11, 1, [sym__documentation_block_comment]), (ACTIONS 5457,
       1, [anon_sym_async]), (STATE 2508, 2, [sym_comment, sym_documentation_comment]), (ACTIONS
       5455, 5, [anon_sym_LBRACE, anon_sym_SEMI, anon_sym_EQ_GT, anon_sym_async_STAR,
       anon_sym_sync_STAR])]),
     (126015, 11, [(ACTIONS 3, 1, [anon_sym_SLASH_SLASH]), (ACTIONS 5, 1,
       [anon_sym_SLASH_STAR]), (ACTIONS 7, 1, [anon_sym_SLASH_SLASH_SLASH]), (ACTIONS 9, 1,
       [sym__block_comment]), (ACTIONS 11, 1, [sym__documentation_block_comment]), (ACTIONS 2154,
       1, [anon_sym_QMARK]), (ACTIONS 4739, 1, [anon_sym_extends]), (STATE 2632, 1,
       [sym_nullable_type]), (STATE 3270, 1, [sym_type_bound]), (ACTIONS 5459, 2,
       [anon_sym_COMMA, anon_sym_GT]), (STATE 2509, 2, [sym_comment,
       sym_documentation_comment])]),
     (126051, 11, [(ACTIONS 3, 1, [anon_sym_SLASH_SLASH]), (ACTIONS 5, 1,
       [anon_sym_SLASH_STAR]), (ACTIONS 7, 1, [anon_sym_SLASH_SLASH_SLASH]), (ACTIONS 9, 1,
       [sym__block_comment]), (ACTIONS 11, 1, [sym__documentation_block_comment]), (ACTIONS 2154,
       1, [anon_sym_QMARK]), (ACTIONS 4739, 1, [anon_sym_extends]), (STATE 2634, 1,
       [sym_nullable_type]), (STATE 3272, 1, [sym_type_bound]), (ACTIONS 5461, 2,
       [anon_sym_COMMA, anon_sym_GT]), (STATE 2510, 2, [sym_comment,
       sym_documentation_comment])]),
     (126087, 12, [(ACTIONS 3, 1, [anon_sym_SLASH_SLASH]), (ACTIONS 5, 1,
       [anon_sym_SLASH_STAR]), (ACTIONS 7, 1, [anon_sym_SLASH_SLASH_SLASH]), (ACTIONS 9, 1,
       [sym__block_comment]), (ACTIONS 11, 1, [sym__documentation_block_comment]), (ACTIONS 5376,
       1, [anon_sym_QMARK]), (ACTIONS 5463, 1, [sym_identifier]), (ACTIONS 5465, 1,
       [anon_sym_LBRACK]), (STATE 455, 1, [sym_cascade_selector]), (STATE 587, 1,
       [sym_index_selector]), (STATE 3102, 1, [sym_nullable_selector]), (STATE 2511, 2,
       [sym_comment, sym_documentation_comment])]),
     (126125, 11, [(ACTIONS 3, 1, [anon_sym_SLASH_SLASH]), (ACTIONS 5, 1,
       [anon_sym_SLASH_STAR]), (ACTIONS 7, 1, [anon_sym_SLASH_SLASH_SLASH]), (ACTIONS 9, 1,
       [sym__block_comment]), (ACTIONS 11, 1, [sym__documentation_block_comment]), (ACTIONS 5193,
       1, [anon_sym_SEMI]), (STATE 1555, 1, [sym__semicolon]), (STATE 2443, 1,
       [aux_sym_library_export_repeat1]), (STATE 2733, 1, [sym_combinator]), (ACTIONS 5195, 2,
       [anon_sym_show, anon_sym_hide]), (STATE 2512, 2, [sym_comment,
       sym_documentation_comment])]),
     (126161, 12, [(ACTIONS 3, 1, [anon_sym_SLASH_SLASH]), (ACTIONS 5, 1,
       [anon_sym_SLASH_STAR]), (ACTIONS 7, 1, [anon_sym_SLASH_SLASH_SLASH]), (ACTIONS 9, 1,
       [sym__block_comment]), (ACTIONS 11, 1, [sym__documentation_block_comment]), (ACTIONS 3511,
       1, [anon_sym_LT]), (ACTIONS 4278, 1, [anon_sym_LPAREN]), (STATE 2016, 1,
       [sym__strict_formal_parameter_list]), (STATE 2020, 1, [sym_formal_parameter_list]), (STATE
       2310, 1, [sym__formal_parameter_part]), (STATE 2932, 1, [sym_type_parameters]), (STATE
       2513, 2, [sym_comment, sym_documentation_comment])])]"

lemma small_run_833: "small_run 2508 125985 ts_small_parse_table_833 2514 126199"
  by (simp add: small_simps ts_small_parse_table_833_def)

definition ts_small_parse_table_834 :: "small_group list" where
  "ts_small_parse_table_834 = [
     (126199, 11, [(ACTIONS 3, 1, [anon_sym_SLASH_SLASH]), (ACTIONS 5, 1,
       [anon_sym_SLASH_STAR]), (ACTIONS 7, 1, [anon_sym_SLASH_SLASH_SLASH]), (ACTIONS 9, 1,
       [sym__block_comment]), (ACTIONS 11, 1, [sym__documentation_block_comment]), (ACTIONS 5193,
       1, [anon_sym_SEMI]), (STATE 1569, 1, [sym__semicolon]), (STATE 2477, 1,
       [aux_sym_library_export_repeat1]), (STATE 2733, 1, [sym_combinator]), (ACTIONS 5195, 2,
       [anon_sym_show, anon_sym_hide]), (STATE 2514, 2, [sym_comment,
       sym_documentation_comment])]),
     (126235, 8, [(ACTIONS 3, 1, [anon_sym_SLASH_SLASH]), (ACTIONS 5, 1,
       [anon_sym_SLASH_STAR]), (ACTIONS 7, 1, [anon_sym_SLASH_SLASH_SLASH]), (ACTIONS 9, 1,
       [sym__block_comment]), (ACTIONS 11, 1, [sym__documentation_block_comment]), (ACTIONS 5469,
       1, [anon_sym_LPAREN]), (STATE 2515, 2, [sym_comment, sym_documentation_comment]), (ACTIONS
       5467, 5, [sym_void_type, anon_sym_Function, anon_sym_get, anon_sym_set, sym_identifier])]),
     (126265, 8, [(ACTIONS 3, 1, [anon_sym_SLASH_SLASH]), (ACTIONS 5, 1,
       [anon_sym_SLASH_STAR]), (ACTIONS 7, 1, [anon_sym_SLASH_SLASH_SLASH]), (ACTIONS 9, 1,
       [sym__block_comment]), (ACTIONS 11, 1, [sym__documentation_block_comment]), (ACTIONS 5473,
       1, [anon_sym_async]), (STATE 2516, 2, [sym_comment, sym_documentation_comment]), (ACTIONS
       5471, 5, [anon_sym_LBRACE, anon_sym_SEMI, anon_sym_EQ_GT, anon_sym_async_STAR,
       anon_sym_sync_STAR])]),
     (126295, 7, [(ACTIONS 3, 1, [anon_sym_SLASH_SLASH]), (ACTIONS 5, 1,
       [anon_sym_SLASH_STAR]), (ACTIONS 7, 1, [anon_sym_SLASH_SLASH_SLASH]), (ACTIONS 9, 1,
       [sym__block_comment]), (ACTIONS 11, 1, [sym__documentation_block_comment]), (STATE 2517,
       2, [sym_comment, sym_documentation_comment]), (ACTIONS 5301, 6,
       [sym__template_chars_double_single, sym__template_chars_raw_slash, anon_sym_DQUOTE,
       anon_sym_SQUOTE, anon_sym_DOLLAR, sym__unused_escape_sequence])]),
     (126323, 8, [(ACTIONS 3, 1, [anon_sym_SLASH_SLASH]), (ACTIONS 5, 1,
       [anon_sym_SLASH_STAR]), (ACTIONS 7, 1, [anon_sym_SLASH_SLASH_SLASH]), (ACTIONS 9, 1,
       [sym__block_comment]), (ACTIONS 11, 1, [sym__documentation_block_comment]), (ACTIONS 5438,
       1, [anon_sym_SQUOTE]), (STATE 2518, 2, [sym_comment, sym_documentation_comment]), (ACTIONS
       5440, 5, [sym__template_chars_single, anon_sym_DQUOTE, anon_sym_SQUOTE_SQUOTE_SQUOTE,
       anon_sym_DOLLAR, sym__unused_escape_sequence])]),
     (126353, 8, [(ACTIONS 3, 1, [anon_sym_SLASH_SLASH]), (ACTIONS 5, 1,
       [anon_sym_SLASH_STAR]), (ACTIONS 7, 1, [anon_sym_SLASH_SLASH_SLASH]), (ACTIONS 9, 1,
       [sym__block_comment]), (ACTIONS 11, 1, [sym__documentation_block_comment]), (ACTIONS 5299,
       1, [anon_sym_SQUOTE]), (STATE 2519, 2, [sym_comment, sym_documentation_comment]), (ACTIONS
       5301, 5, [sym__template_chars_single, anon_sym_DQUOTE, anon_sym_SQUOTE_SQUOTE_SQUOTE,
       anon_sym_DOLLAR, sym__unused_escape_sequence])])]"

lemma small_run_834: "small_run 2514 126199 ts_small_parse_table_834 2520 126383"
  by (simp add: small_simps ts_small_parse_table_834_def)

definition ts_small_parse_table_835 :: "small_group list" where
  "ts_small_parse_table_835 = [
     (126383, 8, [(ACTIONS 3, 1, [anon_sym_SLASH_SLASH]), (ACTIONS 5, 1,
       [anon_sym_SLASH_STAR]), (ACTIONS 7, 1, [anon_sym_SLASH_SLASH_SLASH]), (ACTIONS 9, 1,
       [sym__block_comment]), (ACTIONS 11, 1, [sym__documentation_block_comment]), (ACTIONS 5477,
       1, [anon_sym_async]), (STATE 2520, 2, [sym_comment, sym_documentation_comment]), (ACTIONS
       5475, 5, [anon_sym_LBRACE, anon_sym_SEMI, anon_sym_EQ_GT, anon_sym_async_STAR,
       anon_sym_sync_STAR])]),
     (126413, 9, [(ACTIONS 3, 1, [anon_sym_SLASH_SLASH]), (ACTIONS 5, 1,
       [anon_sym_SLASH_STAR]), (ACTIONS 7, 1, [anon_sym_SLASH_SLASH_SLASH]), (ACTIONS 9, 1,
       [sym__block_comment]), (ACTIONS 11, 1, [sym__documentation_block_comment]), (ACTIONS 5481,
       1, [anon_sym_SEMI]), (ACTIONS 5483, 1, [anon_sym_async]), (STATE 2521, 2, [sym_comment,
       sym_documentation_comment]), (ACTIONS 5479, 4, [anon_sym_LBRACE, anon_sym_EQ_GT,
       anon_sym_async_STAR, anon_sym_sync_STAR])]),
     (126445, 11, [(ACTIONS 3, 1, [anon_sym_SLASH_SLASH]), (ACTIONS 5, 1,
       [anon_sym_SLASH_STAR]), (ACTIONS 7, 1, [anon_sym_SLASH_SLASH_SLASH]), (ACTIONS 9, 1,
       [sym__block_comment]), (ACTIONS 11, 1, [sym__documentation_block_comment]), (ACTIONS 5193,
       1, [anon_sym_SEMI]), (STATE 1569, 1, [sym__semicolon]), (STATE 2535, 1,
       [aux_sym_library_export_repeat1]), (STATE 2733, 1, [sym_combinator]), (ACTIONS 5195, 2,
       [anon_sym_show, anon_sym_hide]), (STATE 2522, 2, [sym_comment,
       sym_documentation_comment])]),
     (126481, 7, [(ACTIONS 3, 1, [anon_sym_SLASH_SLASH]), (ACTIONS 5, 1,
       [anon_sym_SLASH_STAR]), (ACTIONS 7, 1, [anon_sym_SLASH_SLASH_SLASH]), (ACTIONS 9, 1,
       [sym__block_comment]), (ACTIONS 11, 1, [sym__documentation_block_comment]), (STATE 2523,
       2, [sym_comment, sym_documentation_comment]), (ACTIONS 5485, 6, [anon_sym_RBRACE,
       anon_sym_COMMA, anon_sym_RBRACK, anon_sym_COLON, anon_sym_RPAREN, anon_sym_EQ])]),
     (126509, 7, [(ACTIONS 3, 1, [anon_sym_SLASH_SLASH]), (ACTIONS 5, 1,
       [anon_sym_SLASH_STAR]), (ACTIONS 7, 1, [anon_sym_SLASH_SLASH_SLASH]), (ACTIONS 9, 1,
       [sym__block_comment]), (ACTIONS 11, 1, [sym__documentation_block_comment]), (STATE 2524,
       2, [sym_comment, sym_documentation_comment]), (ACTIONS 5487, 6, [anon_sym_RBRACE,
       anon_sym_COMMA, anon_sym_RBRACK, anon_sym_COLON, anon_sym_RPAREN, anon_sym_EQ])]),
     (126537, 7, [(ACTIONS 3, 1, [anon_sym_SLASH_SLASH]), (ACTIONS 5, 1,
       [anon_sym_SLASH_STAR]), (ACTIONS 7, 1, [anon_sym_SLASH_SLASH_SLASH]), (ACTIONS 9, 1,
       [sym__block_comment]), (ACTIONS 11, 1, [sym__documentation_block_comment]), (STATE 2525,
       2, [sym_comment, sym_documentation_comment]), (ACTIONS 5489, 6, [anon_sym_RBRACE,
       anon_sym_COMMA, anon_sym_RBRACK, anon_sym_COLON, anon_sym_RPAREN, anon_sym_EQ])])]"

lemma small_run_835: "small_run 2520 126383 ts_small_parse_table_835 2526 126565"
  by (simp add: small_simps ts_small_parse_table_835_def)

definition ts_small_parse_table_836 :: "small_group list" where
  "ts_small_parse_table_836 = [
     (126565, 8, [(ACTIONS 3, 1, [anon_sym_SLASH_SLASH]), (ACTIONS 5, 1,
       [anon_sym_SLASH_STAR]), (ACTIONS 7, 1, [anon_sym_SLASH_SLASH_SLASH]), (ACTIONS 9, 1,
       [sym__block_comment]), (ACTIONS 11, 1, [sym__documentation_block_comment]), (ACTIONS 5493,
       1, [anon_sym_async]), (STATE 2526, 2, [sym_comment, sym_documentation_comment]), (ACTIONS
       5491, 5, [anon_sym_LBRACE, anon_sym_SEMI, anon_sym_EQ_GT, anon_sym_async_STAR,
       anon_sym_sync_STAR])]),
     (126595, 12, [(ACTIONS 3, 1, [anon_sym_SLASH_SLASH]), (ACTIONS 5, 1,
       [anon_sym_SLASH_STAR]), (ACTIONS 7, 1, [anon_sym_SLASH_SLASH_SLASH]), (ACTIONS 9, 1,
       [sym__block_comment]), (ACTIONS 11, 1, [sym__documentation_block_comment]), (ACTIONS 143,
       1, [anon_sym_AT]), (ACTIONS 5098, 1, [sym_identifier]), (STATE 1308, 1,
       [aux_sym__metadata_repeat1]), (STATE 1361, 1, [sym_annotation]), (STATE 2992, 1,
       [sym_enum_constant]), (STATE 3537, 1, [sym__metadata]), (STATE 2527, 2, [sym_comment,
       sym_documentation_comment])]),
     (126633, 7, [(ACTIONS 3, 1, [anon_sym_SLASH_SLASH]), (ACTIONS 5, 1,
       [anon_sym_SLASH_STAR]), (ACTIONS 7, 1, [anon_sym_SLASH_SLASH_SLASH]), (ACTIONS 9, 1,
       [sym__block_comment]), (ACTIONS 11, 1, [sym__documentation_block_comment]), (STATE 2528,
       2, [sym_comment, sym_documentation_comment]), (ACTIONS 5450, 5, [anon_sym_LPAREN,
       anon_sym_RPAREN, anon_sym_DOT, anon_sym_SEMI, anon_sym_EQ_EQ])]),
     (126660, 9, [(ACTIONS 3, 1, [anon_sym_SLASH_SLASH]), (ACTIONS 5, 1,
       [anon_sym_SLASH_STAR]), (ACTIONS 7, 1, [anon_sym_SLASH_SLASH_SLASH]), (ACTIONS 9, 1,
       [sym__block_comment]), (ACTIONS 11, 1, [sym__documentation_block_comment]), (ACTIONS 5495,
       1, [sym_identifier]), (STATE 2691, 1, [sym_label]), (ACTIONS 5498, 2, [anon_sym_default,
       anon_sym_case]), (STATE 2529, 3, [sym_comment, sym_documentation_comment,
       aux_sym_switch_statement_case_repeat1])]),
     (126691, 10, [(ACTIONS 3, 1, [anon_sym_SLASH_SLASH]), (ACTIONS 5, 1,
       [anon_sym_SLASH_STAR]), (ACTIONS 7, 1, [anon_sym_SLASH_SLASH_SLASH]), (ACTIONS 9, 1,
       [sym__block_comment]), (ACTIONS 11, 1, [sym__documentation_block_comment]), (ACTIONS 47,
       1, [anon_sym_get]), (ACTIONS 61, 1, [anon_sym_set]), (ACTIONS 5357, 1, [sym_identifier]),
       (STATE 2461, 2, [sym__get, sym__set]), (STATE 2530, 2, [sym_comment,
       sym_documentation_comment])]),
     (126724, 7, [(ACTIONS 3, 1, [anon_sym_SLASH_SLASH]), (ACTIONS 5, 1,
       [anon_sym_SLASH_STAR]), (ACTIONS 7, 1, [anon_sym_SLASH_SLASH_SLASH]), (ACTIONS 9, 1,
       [sym__block_comment]), (ACTIONS 11, 1, [sym__documentation_block_comment]), (STATE 2531,
       2, [sym_comment, sym_documentation_comment]), (ACTIONS 5301, 5,
       [sym__template_chars_single_single, anon_sym_DQUOTE, anon_sym_SQUOTE, anon_sym_DOLLAR,
       sym__unused_escape_sequence])])]"

lemma small_run_836: "small_run 2526 126565 ts_small_parse_table_836 2532 126751"
  by (simp add: small_simps ts_small_parse_table_836_def)

definition ts_small_parse_table_837 :: "small_group list" where
  "ts_small_parse_table_837 = [
     (126751, 9, [(ACTIONS 3, 1, [anon_sym_SLASH_SLASH]), (ACTIONS 5, 1,
       [anon_sym_SLASH_STAR]), (ACTIONS 7, 1, [anon_sym_SLASH_SLASH_SLASH]), (ACTIONS 9, 1,
       [sym__block_comment]), (ACTIONS 11, 1, [sym__documentation_block_comment]), (ACTIONS 4797,
       1, [anon_sym_COMMA]), (STATE 2575, 1, [aux_sym_inferred_parameters_repeat1]), (STATE 2532,
       2, [sym_comment, sym_documentation_comment]), (ACTIONS 5500, 3, [anon_sym_SEMI,
       anon_sym_show, anon_sym_hide])]),
     (126782, 7, [(ACTIONS 3, 1, [anon_sym_SLASH_SLASH]), (ACTIONS 5, 1,
       [anon_sym_SLASH_STAR]), (ACTIONS 7, 1, [anon_sym_SLASH_SLASH_SLASH]), (ACTIONS 9, 1,
       [sym__block_comment]), (ACTIONS 11, 1, [sym__documentation_block_comment]), (STATE 2533,
       2, [sym_comment, sym_documentation_comment]), (ACTIONS 5440, 5,
       [sym__template_chars_single_single, anon_sym_DQUOTE, anon_sym_SQUOTE, anon_sym_DOLLAR,
       sym__unused_escape_sequence])]),
     (126809, 9, [(ACTIONS 3, 1, [anon_sym_SLASH_SLASH]), (ACTIONS 5, 1,
       [anon_sym_SLASH_STAR]), (ACTIONS 7, 1, [anon_sym_SLASH_SLASH_SLASH]), (ACTIONS 9, 1,
       [sym__block_comment]), (ACTIONS 11, 1, [sym__documentation_block_comment]), (ACTIONS 4797,
       1, [anon_sym_COMMA]), (STATE 2532, 1, [aux_sym_inferred_parameters_repeat1]), (STATE 2534,
       2, [sym_comment, sym_documentation_comment]), (ACTIONS 5502, 3, [anon_sym_SEMI,
       anon_sym_show, anon_sym_hide])]),
     (126840, 9, [(ACTIONS 3, 1, [anon_sym_SLASH_SLASH]), (ACTIONS 5, 1,
       [anon_sym_SLASH_STAR]), (ACTIONS 7, 1, [anon_sym_SLASH_SLASH_SLASH]), (ACTIONS 9, 1,
       [sym__block_comment]), (ACTIONS 11, 1, [sym__documentation_block_comment]), (ACTIONS 5504,
       1, [anon_sym_SEMI]), (STATE 2733, 1, [sym_combinator]), (ACTIONS 5506, 2, [anon_sym_show,
       anon_sym_hide]), (STATE 2535, 3, [sym_comment, sym_documentation_comment,
       aux_sym_library_export_repeat1])]),
     (126871, 11, [(ACTIONS 3, 1, [anon_sym_SLASH_SLASH]), (ACTIONS 5, 1,
       [anon_sym_SLASH_STAR]), (ACTIONS 7, 1, [anon_sym_SLASH_SLASH_SLASH]), (ACTIONS 9, 1,
       [sym__block_comment]), (ACTIONS 11, 1, [sym__documentation_block_comment]), (ACTIONS 474,
       1, [anon_sym_SEMI]), (ACTIONS 5509, 1, [anon_sym_COMMA]), (ACTIONS 5511, 1,
       [anon_sym_RPAREN]), (STATE 197, 1, [sym__semicolon]), (STATE 2763, 1,
       [aux_sym__for_loop_parts_repeat2]), (STATE 2536, 2, [sym_comment,
       sym_documentation_comment])]),
     (126906, 7, [(ACTIONS 3, 1, [anon_sym_SLASH_SLASH]), (ACTIONS 5, 1,
       [anon_sym_SLASH_STAR]), (ACTIONS 7, 1, [anon_sym_SLASH_SLASH_SLASH]), (ACTIONS 9, 1,
       [sym__block_comment]), (ACTIONS 11, 1, [sym__documentation_block_comment]), (STATE 2537,
       2, [sym_comment, sym_documentation_comment]), (ACTIONS 5513, 5, [anon_sym_as,
       anon_sym_SEMI, anon_sym_if, anon_sym_show, anon_sym_hide])]),
     (126933, 7, [(ACTIONS 3, 1, [anon_sym_SLASH_SLASH]), (ACTIONS 5, 1,
       [anon_sym_SLASH_STAR]), (ACTIONS 7, 1, [anon_sym_SLASH_SLASH_SLASH]), (ACTIONS 9, 1,
       [sym__block_comment]), (ACTIONS 11, 1, [sym__documentation_block_comment]), (STATE 2538,
       2, [sym_comment, sym_documentation_comment]), (ACTIONS 5360, 5,
       [sym__template_chars_double_single, anon_sym_DQUOTE, anon_sym_SQUOTE, anon_sym_DOLLAR,
       sym__unused_escape_sequence])])]"

lemma small_run_837: "small_run 2532 126751 ts_small_parse_table_837 2539 126960"
  by (simp add: small_simps ts_small_parse_table_837_def)

definition ts_small_parse_table_838 :: "small_group list" where
  "ts_small_parse_table_838 = [
     (126960, 11, [(ACTIONS 3, 1, [anon_sym_SLASH_SLASH]), (ACTIONS 5, 1,
       [anon_sym_SLASH_STAR]), (ACTIONS 7, 1, [anon_sym_SLASH_SLASH_SLASH]), (ACTIONS 9, 1,
       [sym__block_comment]), (ACTIONS 11, 1, [sym__documentation_block_comment]), (ACTIONS 4278,
       1, [anon_sym_LPAREN]), (ACTIONS 5515, 1, [anon_sym_DOT]), (STATE 2016, 1,
       [sym__strict_formal_parameter_list]), (STATE 2546, 1,
       [aux_sym_factory_constructor_signature_repeat1]), (STATE 3039, 1,
       [sym_formal_parameter_list]), (STATE 2539, 2, [sym_comment, sym_documentation_comment])]),
     (126995, 11, [(ACTIONS 3, 1, [anon_sym_SLASH_SLASH]), (ACTIONS 5, 1,
       [anon_sym_SLASH_STAR]), (ACTIONS 7, 1, [anon_sym_SLASH_SLASH_SLASH]), (ACTIONS 9, 1,
       [sym__block_comment]), (ACTIONS 11, 1, [sym__documentation_block_comment]), (ACTIONS 159,
       1, [anon_sym_this]), (ACTIONS 161, 1, [anon_sym_super]), (ACTIONS 5517, 1,
       [sym_identifier]), (STATE 3538, 1, [sym_super]), (STATE 3551, 1, [sym_this]), (STATE 2540,
       2, [sym_comment, sym_documentation_comment])]),
     (127030, 8, [(ACTIONS 3, 1, [anon_sym_SLASH_SLASH]), (ACTIONS 5, 1,
       [anon_sym_SLASH_STAR]), (ACTIONS 7, 1, [anon_sym_SLASH_SLASH_SLASH]), (ACTIONS 9, 1,
       [sym__block_comment]), (ACTIONS 11, 1, [sym__documentation_block_comment]), (ACTIONS 5521,
       1, [anon_sym_COMMA]), (ACTIONS 5519, 3, [anon_sym_LBRACE, anon_sym_SEMI,
       anon_sym_implements]), (STATE 2541, 3, [sym_comment, sym_documentation_comment,
       aux_sym__type_not_void_list_repeat1])]),
     (127059, 11, [(ACTIONS 3, 1, [anon_sym_SLASH_SLASH]), (ACTIONS 5, 1,
       [anon_sym_SLASH_STAR]), (ACTIONS 7, 1, [anon_sym_SLASH_SLASH_SLASH]), (ACTIONS 9, 1,
       [sym__block_comment]), (ACTIONS 11, 1, [sym__documentation_block_comment]), (ACTIONS 4278,
       1, [anon_sym_LPAREN]), (ACTIONS 5515, 1, [anon_sym_DOT]), (STATE 2016, 1,
       [sym__strict_formal_parameter_list]), (STATE 2406, 1, [sym_formal_parameter_list]), (STATE
       2577, 1, [aux_sym_factory_constructor_signature_repeat1]), (STATE 2542, 2, [sym_comment,
       sym_documentation_comment])]),
     (127094, 7, [(ACTIONS 3, 1, [anon_sym_SLASH_SLASH]), (ACTIONS 5, 1,
       [anon_sym_SLASH_STAR]), (ACTIONS 7, 1, [anon_sym_SLASH_SLASH_SLASH]), (ACTIONS 9, 1,
       [sym__block_comment]), (ACTIONS 11, 1, [sym__documentation_block_comment]), (STATE 2543,
       2, [sym_comment, sym_documentation_comment]), (ACTIONS 5524, 5, [anon_sym_as,
       anon_sym_SEMI, anon_sym_if, anon_sym_show, anon_sym_hide])]),
     (127121, 11, [(ACTIONS 3, 1, [anon_sym_SLASH_SLASH]), (ACTIONS 5, 1,
       [anon_sym_SLASH_STAR]), (ACTIONS 7, 1, [anon_sym_SLASH_SLASH_SLASH]), (ACTIONS 9, 1,
       [sym__block_comment]), (ACTIONS 11, 1, [sym__documentation_block_comment]), (ACTIONS 4578,
       1, [anon_sym_LBRACE]), (ACTIONS 4586, 1, [anon_sym_implements]), (STATE 1741, 1,
       [sym_class_body]), (STATE 2023, 1, [sym__implements]), (STATE 3063, 1, [sym_interfaces]),
       (STATE 2544, 2, [sym_comment, sym_documentation_comment])])]"

lemma small_run_838: "small_run 2539 126960 ts_small_parse_table_838 2545 127156"
  by (simp add: small_simps ts_small_parse_table_838_def)

definition ts_small_parse_table_839 :: "small_group list" where
  "ts_small_parse_table_839 = [
     (127156, 11, [(ACTIONS 3, 1, [anon_sym_SLASH_SLASH]), (ACTIONS 5, 1,
       [anon_sym_SLASH_STAR]), (ACTIONS 7, 1, [anon_sym_SLASH_SLASH_SLASH]), (ACTIONS 9, 1,
       [sym__block_comment]), (ACTIONS 11, 1, [sym__documentation_block_comment]), (ACTIONS 5526,
       1, [sym_identifier]), (ACTIONS 5528, 1, [anon_sym_new]), (STATE 1203, 1,
       [sym__new_builtin]), (STATE 2110, 1, [sym__identifier_or_new]), (STATE 3276, 1,
       [sym__type_name]), (STATE 2545, 2, [sym_comment, sym_documentation_comment])]),
     (127191, 11, [(ACTIONS 3, 1, [anon_sym_SLASH_SLASH]), (ACTIONS 5, 1,
       [anon_sym_SLASH_STAR]), (ACTIONS 7, 1, [anon_sym_SLASH_SLASH_SLASH]), (ACTIONS 9, 1,
       [sym__block_comment]), (ACTIONS 11, 1, [sym__documentation_block_comment]), (ACTIONS 4278,
       1, [anon_sym_LPAREN]), (ACTIONS 5515, 1, [anon_sym_DOT]), (STATE 2016, 1,
       [sym__strict_formal_parameter_list]), (STATE 2504, 1,
       [aux_sym_factory_constructor_signature_repeat1]), (STATE 3232, 1,
       [sym_formal_parameter_list]), (STATE 2546, 2, [sym_comment, sym_documentation_comment])]),
     (127226, 11, [(ACTIONS 3, 1, [anon_sym_SLASH_SLASH]), (ACTIONS 5, 1,
       [anon_sym_SLASH_STAR]), (ACTIONS 7, 1, [anon_sym_SLASH_SLASH_SLASH]), (ACTIONS 9, 1,
       [sym__block_comment]), (ACTIONS 11, 1, [sym__documentation_block_comment]), (ACTIONS 4578,
       1, [anon_sym_LBRACE]), (ACTIONS 4586, 1, [anon_sym_implements]), (STATE 1793, 1,
       [sym_class_body]), (STATE 2023, 1, [sym__implements]), (STATE 3185, 1, [sym_interfaces]),
       (STATE 2547, 2, [sym_comment, sym_documentation_comment])]),
     (127261, 11, [(ACTIONS 3, 1, [anon_sym_SLASH_SLASH]), (ACTIONS 5, 1,
       [anon_sym_SLASH_STAR]), (ACTIONS 7, 1, [anon_sym_SLASH_SLASH_SLASH]), (ACTIONS 9, 1,
       [sym__block_comment]), (ACTIONS 11, 1, [sym__documentation_block_comment]), (ACTIONS 5526,
       1, [sym_identifier]), (ACTIONS 5530, 1, [anon_sym_new]), (STATE 2078, 1,
       [sym__new_builtin]), (STATE 2110, 1, [sym__identifier_or_new]), (STATE 3276, 1,
       [sym__type_name]), (STATE 2548, 2, [sym_comment, sym_documentation_comment])]),
     (127296, 11, [(ACTIONS 3, 1, [anon_sym_SLASH_SLASH]), (ACTIONS 5, 1,
       [anon_sym_SLASH_STAR]), (ACTIONS 7, 1, [anon_sym_SLASH_SLASH_SLASH]), (ACTIONS 9, 1,
       [sym__block_comment]), (ACTIONS 11, 1, [sym__documentation_block_comment]), (ACTIONS 474,
       1, [anon_sym_SEMI]), (ACTIONS 5509, 1, [anon_sym_COMMA]), (ACTIONS 5532, 1,
       [anon_sym_RPAREN]), (STATE 196, 1, [sym__semicolon]), (STATE 2677, 1,
       [aux_sym__for_loop_parts_repeat2]), (STATE 2549, 2, [sym_comment,
       sym_documentation_comment])]),
     (127331, 11, [(ACTIONS 3, 1, [anon_sym_SLASH_SLASH]), (ACTIONS 5, 1,
       [anon_sym_SLASH_STAR]), (ACTIONS 7, 1, [anon_sym_SLASH_SLASH_SLASH]), (ACTIONS 9, 1,
       [sym__block_comment]), (ACTIONS 11, 1, [sym__documentation_block_comment]), (ACTIONS 4586,
       1, [anon_sym_implements]), (ACTIONS 4971, 1, [anon_sym_LBRACE]), (STATE 1786, 1,
       [sym_enum_body]), (STATE 2023, 1, [sym__implements]), (STATE 3255, 1, [sym_interfaces]),
       (STATE 2550, 2, [sym_comment, sym_documentation_comment])])]"

lemma small_run_839: "small_run 2545 127156 ts_small_parse_table_839 2551 127366"
  by (simp add: small_simps ts_small_parse_table_839_def)

definition ts_small_parse_table_840 :: "small_group list" where
  "ts_small_parse_table_840 = [
     (127366, 9, [(ACTIONS 3, 1, [anon_sym_SLASH_SLASH]), (ACTIONS 5, 1,
       [anon_sym_SLASH_STAR]), (ACTIONS 7, 1, [anon_sym_SLASH_SLASH_SLASH]), (ACTIONS 9, 1,
       [sym__block_comment]), (ACTIONS 11, 1, [sym__documentation_block_comment]), (ACTIONS 5017,
       1, [anon_sym_LPAREN]), (ACTIONS 5534, 1, [anon_sym_class]), (STATE 2551, 2, [sym_comment,
       sym_documentation_comment]), (ACTIONS 5015, 3, [sym_void_type, anon_sym_Function,
       sym_identifier])]),
     (127397, 11, [(ACTIONS 3, 1, [anon_sym_SLASH_SLASH]), (ACTIONS 5, 1,
       [anon_sym_SLASH_STAR]), (ACTIONS 7, 1, [anon_sym_SLASH_SLASH_SLASH]), (ACTIONS 9, 1,
       [sym__block_comment]), (ACTIONS 11, 1, [sym__documentation_block_comment]), (ACTIONS 4278,
       1, [anon_sym_LPAREN]), (ACTIONS 5515, 1, [anon_sym_DOT]), (STATE 2016, 1,
       [sym__strict_formal_parameter_list]), (STATE 2504, 1,
       [aux_sym_factory_constructor_signature_repeat1]), (STATE 3301, 1,
       [sym_formal_parameter_list]), (STATE 2552, 2, [sym_comment, sym_documentation_comment])]),
     (127432, 9, [(ACTIONS 3, 1, [anon_sym_SLASH_SLASH]), (ACTIONS 5, 1,
       [anon_sym_SLASH_STAR]), (ACTIONS 7, 1, [anon_sym_SLASH_SLASH_SLASH]), (ACTIONS 9, 1,
       [sym__block_comment]), (ACTIONS 11, 1, [sym__documentation_block_comment]), (ACTIONS 5536,
       1, [sym_identifier]), (ACTIONS 4404, 2, [anon_sym_this, anon_sym_super]), (ACTIONS 5540,
       2, [anon_sym_COMMA, anon_sym_RPAREN]), (STATE 2553, 2, [sym_comment,
       sym_documentation_comment])]),
     (127463, 9, [(ACTIONS 3, 1, [anon_sym_SLASH_SLASH]), (ACTIONS 5, 1,
       [anon_sym_SLASH_STAR]), (ACTIONS 7, 1, [anon_sym_SLASH_SLASH_SLASH]), (ACTIONS 9, 1,
       [sym__block_comment]), (ACTIONS 11, 1, [sym__documentation_block_comment]), (ACTIONS 5544,
       1, [anon_sym_COMMA]), (STATE 2555, 1, [aux_sym__type_not_void_list_repeat1]), (STATE 2554,
       2, [sym_comment, sym_documentation_comment]), (ACTIONS 5542, 3, [anon_sym_LBRACE,
       anon_sym_SEMI, anon_sym_implements])]),
     (127494, 9, [(ACTIONS 3, 1, [anon_sym_SLASH_SLASH]), (ACTIONS 5, 1,
       [anon_sym_SLASH_STAR]), (ACTIONS 7, 1, [anon_sym_SLASH_SLASH_SLASH]), (ACTIONS 9, 1,
       [sym__block_comment]), (ACTIONS 11, 1, [sym__documentation_block_comment]), (ACTIONS 5544,
       1, [anon_sym_COMMA]), (STATE 2541, 1, [aux_sym__type_not_void_list_repeat1]), (STATE 2555,
       2, [sym_comment, sym_documentation_comment]), (ACTIONS 5546, 3, [anon_sym_LBRACE,
       anon_sym_SEMI, anon_sym_implements])]),
     (127525, 8, [(ACTIONS 3, 1, [anon_sym_SLASH_SLASH]), (ACTIONS 5, 1,
       [anon_sym_SLASH_STAR]), (ACTIONS 7, 1, [anon_sym_SLASH_SLASH_SLASH]), (ACTIONS 9, 1,
       [sym__block_comment]), (ACTIONS 11, 1, [sym__documentation_block_comment]), (ACTIONS 2762,
       2, [anon_sym_LPAREN, anon_sym_DOT]), (STATE 2556, 2, [sym_comment,
       sym_documentation_comment]), (ACTIONS 4313, 3, [anon_sym_this, anon_sym_super,
       sym_identifier])])]"

lemma small_run_840: "small_run 2551 127366 ts_small_parse_table_840 2557 127554"
  by (simp add: small_simps ts_small_parse_table_840_def)

definition ts_small_parse_table_841 :: "small_group list" where
  "ts_small_parse_table_841 = [
     (127554, 11, [(ACTIONS 3, 1, [anon_sym_SLASH_SLASH]), (ACTIONS 5, 1,
       [anon_sym_SLASH_STAR]), (ACTIONS 7, 1, [anon_sym_SLASH_SLASH_SLASH]), (ACTIONS 9, 1,
       [sym__block_comment]), (ACTIONS 11, 1, [sym__documentation_block_comment]), (ACTIONS 159,
       1, [anon_sym_this]), (ACTIONS 161, 1, [anon_sym_super]), (ACTIONS 5548, 1,
       [sym_identifier]), (STATE 3538, 1, [sym_super]), (STATE 3551, 1, [sym_this]), (STATE 2557,
       2, [sym_comment, sym_documentation_comment])]),
     (127589, 7, [(ACTIONS 3, 1, [anon_sym_SLASH_SLASH]), (ACTIONS 5, 1,
       [anon_sym_SLASH_STAR]), (ACTIONS 7, 1, [anon_sym_SLASH_SLASH_SLASH]), (ACTIONS 9, 1,
       [sym__block_comment]), (ACTIONS 11, 1, [sym__documentation_block_comment]), (STATE 2558,
       2, [sym_comment, sym_documentation_comment]), (ACTIONS 5382, 5,
       [sym__template_chars_single_single, anon_sym_DQUOTE, anon_sym_SQUOTE, anon_sym_DOLLAR,
       sym__unused_escape_sequence])]),
     (127616, 11, [(ACTIONS 3, 1, [anon_sym_SLASH_SLASH]), (ACTIONS 5, 1,
       [anon_sym_SLASH_STAR]), (ACTIONS 7, 1, [anon_sym_SLASH_SLASH_SLASH]), (ACTIONS 9, 1,
       [sym__block_comment]), (ACTIONS 11, 1, [sym__documentation_block_comment]), (ACTIONS 892,
       1, [anon_sym_case]), (ACTIONS 4745, 1, [sym_identifier]), (STATE 416, 1,
       [sym_case_builtin]), (STATE 2529, 1, [aux_sym_switch_statement_case_repeat1]), (STATE
       2691, 1, [sym_label]), (STATE 2559, 2, [sym_comment, sym_documentation_comment])]),
     (127651, 9, [(ACTIONS 3, 1, [anon_sym_SLASH_SLASH]), (ACTIONS 5, 1,
       [anon_sym_SLASH_STAR]), (ACTIONS 7, 1, [anon_sym_SLASH_SLASH_SLASH]), (ACTIONS 9, 1,
       [sym__block_comment]), (ACTIONS 11, 1, [sym__documentation_block_comment]), (ACTIONS 5515,
       1, [anon_sym_DOT]), (STATE 2504, 1, [aux_sym_factory_constructor_signature_repeat1]),
       (STATE 2560, 2, [sym_comment, sym_documentation_comment]), (ACTIONS 5550, 3,
       [anon_sym_RPAREN, anon_sym_SEMI, anon_sym_EQ_EQ])]),
     (127682, 11, [(ACTIONS 3, 1, [anon_sym_SLASH_SLASH]), (ACTIONS 5, 1,
       [anon_sym_SLASH_STAR]), (ACTIONS 7, 1, [anon_sym_SLASH_SLASH_SLASH]), (ACTIONS 9, 1,
       [sym__block_comment]), (ACTIONS 11, 1, [sym__documentation_block_comment]), (ACTIONS 5552,
       1, [anon_sym_COMMA]), (ACTIONS 5554, 1, [anon_sym_EQ]), (ACTIONS 5556, 1,
       [anon_sym_SEMI]), (ACTIONS 5558, 1, [anon_sym_in]), (STATE 2673, 1,
       [aux_sym_initialized_identifier_list_repeat1]), (STATE 2561, 2, [sym_comment,
       sym_documentation_comment])]),
     (127717, 8, [(ACTIONS 3, 1, [anon_sym_SLASH_SLASH]), (ACTIONS 5, 1,
       [anon_sym_SLASH_STAR]), (ACTIONS 7, 1, [anon_sym_SLASH_SLASH_SLASH]), (ACTIONS 9, 1,
       [sym__block_comment]), (ACTIONS 11, 1, [sym__documentation_block_comment]), (ACTIONS 5448,
       1, [anon_sym_COLON]), (STATE 2562, 2, [sym_comment, sym_documentation_comment]), (ACTIONS
       5446, 4, [anon_sym_RBRACE, anon_sym_COMMA, anon_sym_RBRACK, anon_sym_else])])]"

lemma small_run_841: "small_run 2557 127554 ts_small_parse_table_841 2563 127746"
  by (simp add: small_simps ts_small_parse_table_841_def)

definition ts_small_parse_table_842 :: "small_group list" where
  "ts_small_parse_table_842 = [
     (127746, 11, [(ACTIONS 3, 1, [anon_sym_SLASH_SLASH]), (ACTIONS 5, 1,
       [anon_sym_SLASH_STAR]), (ACTIONS 7, 1, [anon_sym_SLASH_SLASH_SLASH]), (ACTIONS 9, 1,
       [sym__block_comment]), (ACTIONS 11, 1, [sym__documentation_block_comment]), (ACTIONS 4586,
       1, [anon_sym_implements]), (ACTIONS 4971, 1, [anon_sym_LBRACE]), (STATE 1775, 1,
       [sym_enum_body]), (STATE 2023, 1, [sym__implements]), (STATE 3042, 1, [sym_interfaces]),
       (STATE 2563, 2, [sym_comment, sym_documentation_comment])]),
     (127781, 11, [(ACTIONS 3, 1, [anon_sym_SLASH_SLASH]), (ACTIONS 5, 1,
       [anon_sym_SLASH_STAR]), (ACTIONS 7, 1, [anon_sym_SLASH_SLASH_SLASH]), (ACTIONS 9, 1,
       [sym__block_comment]), (ACTIONS 11, 1, [sym__documentation_block_comment]), (ACTIONS 4578,
       1, [anon_sym_LBRACE]), (ACTIONS 4586, 1, [anon_sym_implements]), (STATE 1731, 1,
       [sym_class_body]), (STATE 2023, 1, [sym__implements]), (STATE 3253, 1, [sym_interfaces]),
       (STATE 2564, 2, [sym_comment, sym_documentation_comment])]),
     (127816, 10, [(ACTIONS 3, 1, [anon_sym_SLASH_SLASH]), (ACTIONS 5, 1,
       [anon_sym_SLASH_STAR]), (ACTIONS 7, 1, [anon_sym_SLASH_SLASH_SLASH]), (ACTIONS 9, 1,
       [sym__block_comment]), (ACTIONS 11, 1, [sym__documentation_block_comment]), (ACTIONS 474,
       1, [anon_sym_SEMI]), (ACTIONS 5560, 1, [anon_sym_COLON]), (STATE 519, 1,
       [sym__semicolon]), (ACTIONS 5446, 2, [anon_sym_RBRACE, anon_sym_COMMA]), (STATE 2565, 2,
       [sym_comment, sym_documentation_comment])]),
     (127849, 11, [(ACTIONS 3, 1, [anon_sym_SLASH_SLASH]), (ACTIONS 5, 1,
       [anon_sym_SLASH_STAR]), (ACTIONS 7, 1, [anon_sym_SLASH_SLASH_SLASH]), (ACTIONS 9, 1,
       [sym__block_comment]), (ACTIONS 11, 1, [sym__documentation_block_comment]), (ACTIONS 47,
       1, [anon_sym_get]), (ACTIONS 61, 1, [anon_sym_set]), (ACTIONS 5562, 1, [sym_identifier]),
       (STATE 2395, 1, [sym__set]), (STATE 2469, 1, [sym__get]), (STATE 2566, 2, [sym_comment,
       sym_documentation_comment])]),
     (127884, 11, [(ACTIONS 3, 1, [anon_sym_SLASH_SLASH]), (ACTIONS 5, 1,
       [anon_sym_SLASH_STAR]), (ACTIONS 7, 1, [anon_sym_SLASH_SLASH_SLASH]), (ACTIONS 9, 1,
       [sym__block_comment]), (ACTIONS 11, 1, [sym__documentation_block_comment]), (ACTIONS 47,
       1, [anon_sym_get]), (ACTIONS 61, 1, [anon_sym_set]), (ACTIONS 5562, 1, [sym_identifier]),
       (STATE 2395, 1, [sym__set]), (STATE 2400, 1, [sym__get]), (STATE 2567, 2, [sym_comment,
       sym_documentation_comment])]),
     (127919, 8, [(ACTIONS 3, 1, [anon_sym_SLASH_SLASH]), (ACTIONS 5, 1,
       [anon_sym_SLASH_STAR]), (ACTIONS 7, 1, [anon_sym_SLASH_SLASH_SLASH]), (ACTIONS 9, 1,
       [sym__block_comment]), (ACTIONS 11, 1, [sym__documentation_block_comment]), (ACTIONS 5483,
       1, [anon_sym_async]), (STATE 2568, 2, [sym_comment, sym_documentation_comment]), (ACTIONS
       5479, 4, [anon_sym_LBRACE, anon_sym_EQ_GT, anon_sym_async_STAR, anon_sym_sync_STAR])])]"

lemma small_run_842: "small_run 2563 127746 ts_small_parse_table_842 2569 127948"
  by (simp add: small_simps ts_small_parse_table_842_def)

definition ts_small_parse_table_843 :: "small_group list" where
  "ts_small_parse_table_843 = [
     (127948, 7, [(ACTIONS 3, 1, [anon_sym_SLASH_SLASH]), (ACTIONS 5, 1,
       [anon_sym_SLASH_STAR]), (ACTIONS 7, 1, [anon_sym_SLASH_SLASH_SLASH]), (ACTIONS 9, 1,
       [sym__block_comment]), (ACTIONS 11, 1, [sym__documentation_block_comment]), (STATE 2569,
       2, [sym_comment, sym_documentation_comment]), (ACTIONS 5440, 5,
       [sym__template_chars_double_single, anon_sym_DQUOTE, anon_sym_SQUOTE, anon_sym_DOLLAR,
       sym__unused_escape_sequence])]),
     (127975, 7, [(ACTIONS 3, 1, [anon_sym_SLASH_SLASH]), (ACTIONS 5, 1,
       [anon_sym_SLASH_STAR]), (ACTIONS 7, 1, [anon_sym_SLASH_SLASH_SLASH]), (ACTIONS 9, 1,
       [sym__block_comment]), (ACTIONS 11, 1, [sym__documentation_block_comment]), (STATE 2570,
       2, [sym_comment, sym_documentation_comment]), (ACTIONS 5301, 5,
       [sym__template_chars_double_single, anon_sym_DQUOTE, anon_sym_SQUOTE, anon_sym_DOLLAR,
       sym__unused_escape_sequence])]),
     (128002, 11, [(ACTIONS 3, 1, [anon_sym_SLASH_SLASH]), (ACTIONS 5, 1,
       [anon_sym_SLASH_STAR]), (ACTIONS 7, 1, [anon_sym_SLASH_SLASH_SLASH]), (ACTIONS 9, 1,
       [sym__block_comment]), (ACTIONS 11, 1, [sym__documentation_block_comment]), (ACTIONS 4586,
       1, [anon_sym_implements]), (ACTIONS 4971, 1, [anon_sym_LBRACE]), (STATE 1735, 1,
       [sym_enum_body]), (STATE 2023, 1, [sym__implements]), (STATE 3147, 1, [sym_interfaces]),
       (STATE 2571, 2, [sym_comment, sym_documentation_comment])]),
     (128037, 11, [(ACTIONS 3, 1, [anon_sym_SLASH_SLASH]), (ACTIONS 5, 1,
       [anon_sym_SLASH_STAR]), (ACTIONS 7, 1, [anon_sym_SLASH_SLASH_SLASH]), (ACTIONS 9, 1,
       [sym__block_comment]), (ACTIONS 11, 1, [sym__documentation_block_comment]), (ACTIONS 4578,
       1, [anon_sym_LBRACE]), (ACTIONS 4586, 1, [anon_sym_implements]), (STATE 1749, 1,
       [sym_class_body]), (STATE 2023, 1, [sym__implements]), (STATE 3157, 1, [sym_interfaces]),
       (STATE 2572, 2, [sym_comment, sym_documentation_comment])]),
     (128072, 7, [(ACTIONS 3, 1, [anon_sym_SLASH_SLASH]), (ACTIONS 5, 1,
       [anon_sym_SLASH_STAR]), (ACTIONS 7, 1, [anon_sym_SLASH_SLASH_SLASH]), (ACTIONS 9, 1,
       [sym__block_comment]), (ACTIONS 11, 1, [sym__documentation_block_comment]), (STATE 2573,
       2, [sym_comment, sym_documentation_comment]), (ACTIONS 5360, 5,
       [sym__template_chars_single_single, anon_sym_DQUOTE, anon_sym_SQUOTE, anon_sym_DOLLAR,
       sym__unused_escape_sequence])]),
     (128099, 11, [(ACTIONS 3, 1, [anon_sym_SLASH_SLASH]), (ACTIONS 5, 1,
       [anon_sym_SLASH_STAR]), (ACTIONS 7, 1, [anon_sym_SLASH_SLASH_SLASH]), (ACTIONS 9, 1,
       [sym__block_comment]), (ACTIONS 11, 1, [sym__documentation_block_comment]), (ACTIONS 4578,
       1, [anon_sym_LBRACE]), (ACTIONS 4586, 1, [anon_sym_implements]), (STATE 1761, 1,
       [sym_class_body]), (STATE 2023, 1, [sym__implements]), (STATE 3166, 1, [sym_interfaces]),
       (STATE 2574, 2, [sym_comment, sym_documentation_comment])])]"

lemma small_run_843: "small_run 2569 127948 ts_small_parse_table_843 2575 128134"
  by (simp add: small_simps ts_small_parse_table_843_def)

definition ts_small_parse_table_844 :: "small_group list" where
  "ts_small_parse_table_844 = [
     (128134, 8, [(ACTIONS 3, 1, [anon_sym_SLASH_SLASH]), (ACTIONS 5, 1,
       [anon_sym_SLASH_STAR]), (ACTIONS 7, 1, [anon_sym_SLASH_SLASH_SLASH]), (ACTIONS 9, 1,
       [sym__block_comment]), (ACTIONS 11, 1, [sym__documentation_block_comment]), (ACTIONS 5564,
       1, [anon_sym_COMMA]), (ACTIONS 5567, 3, [anon_sym_SEMI, anon_sym_show, anon_sym_hide]),
       (STATE 2575, 3, [sym_comment, sym_documentation_comment,
       aux_sym_inferred_parameters_repeat1])]),
     (128163, 11, [(ACTIONS 3, 1, [anon_sym_SLASH_SLASH]), (ACTIONS 5, 1,
       [anon_sym_SLASH_STAR]), (ACTIONS 7, 1, [anon_sym_SLASH_SLASH_SLASH]), (ACTIONS 9, 1,
       [sym__block_comment]), (ACTIONS 11, 1, [sym__documentation_block_comment]), (ACTIONS 4278,
       1, [anon_sym_LPAREN]), (ACTIONS 5515, 1, [anon_sym_DOT]), (STATE 2016, 1,
       [sym__strict_formal_parameter_list]), (STATE 2552, 1,
       [aux_sym_factory_constructor_signature_repeat1]), (STATE 3542, 1,
       [sym_formal_parameter_list]), (STATE 2576, 2, [sym_comment, sym_documentation_comment])]),
     (128198, 11, [(ACTIONS 3, 1, [anon_sym_SLASH_SLASH]), (ACTIONS 5, 1,
       [anon_sym_SLASH_STAR]), (ACTIONS 7, 1, [anon_sym_SLASH_SLASH_SLASH]), (ACTIONS 9, 1,
       [sym__block_comment]), (ACTIONS 11, 1, [sym__documentation_block_comment]), (ACTIONS 4278,
       1, [anon_sym_LPAREN]), (ACTIONS 5515, 1, [anon_sym_DOT]), (STATE 2016, 1,
       [sym__strict_formal_parameter_list]), (STATE 2352, 1, [sym_formal_parameter_list]), (STATE
       2504, 1, [aux_sym_factory_constructor_signature_repeat1]), (STATE 2577, 2, [sym_comment,
       sym_documentation_comment])]),
     (128233, 11, [(ACTIONS 3, 1, [anon_sym_SLASH_SLASH]), (ACTIONS 5, 1,
       [anon_sym_SLASH_STAR]), (ACTIONS 7, 1, [anon_sym_SLASH_SLASH_SLASH]), (ACTIONS 9, 1,
       [sym__block_comment]), (ACTIONS 11, 1, [sym__documentation_block_comment]), (ACTIONS 4578,
       1, [anon_sym_LBRACE]), (ACTIONS 4586, 1, [anon_sym_implements]), (STATE 1773, 1,
       [sym_class_body]), (STATE 2023, 1, [sym__implements]), (STATE 3186, 1, [sym_interfaces]),
       (STATE 2578, 2, [sym_comment, sym_documentation_comment])]),
     (128268, 11, [(ACTIONS 3, 1, [anon_sym_SLASH_SLASH]), (ACTIONS 5, 1,
       [anon_sym_SLASH_STAR]), (ACTIONS 7, 1, [anon_sym_SLASH_SLASH_SLASH]), (ACTIONS 9, 1,
       [sym__block_comment]), (ACTIONS 11, 1, [sym__documentation_block_comment]), (ACTIONS 5569,
       1, [anon_sym_export]), (ACTIONS 5571, 1, [anon_sym_import]), (STATE 1576, 1,
       [sym_import_specification]), (STATE 1817, 1, [sym__import]), (STATE 1840, 1,
       [sym__export]), (STATE 2579, 2, [sym_comment, sym_documentation_comment])]),
     (128303, 9, [(ACTIONS 3, 1, [anon_sym_SLASH_SLASH]), (ACTIONS 5, 1,
       [anon_sym_SLASH_STAR]), (ACTIONS 7, 1, [anon_sym_SLASH_SLASH_SLASH]), (ACTIONS 9, 1,
       [sym__block_comment]), (ACTIONS 11, 1, [sym__documentation_block_comment]), (ACTIONS 5515,
       1, [anon_sym_DOT]), (STATE 2560, 1, [aux_sym_factory_constructor_signature_repeat1]),
       (STATE 2580, 2, [sym_comment, sym_documentation_comment]), (ACTIONS 5573, 3,
       [anon_sym_RPAREN, anon_sym_SEMI, anon_sym_EQ_EQ])])]"

lemma small_run_844: "small_run 2575 128134 ts_small_parse_table_844 2581 128334"
  by (simp add: small_simps ts_small_parse_table_844_def)

definition ts_small_parse_table_845 :: "small_group list" where
  "ts_small_parse_table_845 = [
     (128334, 9, [(ACTIONS 3, 1, [anon_sym_SLASH_SLASH]), (ACTIONS 5, 1,
       [anon_sym_SLASH_STAR]), (ACTIONS 7, 1, [anon_sym_SLASH_SLASH_SLASH]), (ACTIONS 9, 1,
       [sym__block_comment]), (ACTIONS 11, 1, [sym__documentation_block_comment]), (ACTIONS 5575,
       1, [sym_identifier]), (ACTIONS 4404, 2, [anon_sym_this, anon_sym_super]), (ACTIONS 5069,
       2, [anon_sym_COMMA, anon_sym_RPAREN]), (STATE 2581, 2, [sym_comment,
       sym_documentation_comment])]),
     (128365, 11, [(ACTIONS 3, 1, [anon_sym_SLASH_SLASH]), (ACTIONS 5, 1,
       [anon_sym_SLASH_STAR]), (ACTIONS 7, 1, [anon_sym_SLASH_SLASH_SLASH]), (ACTIONS 9, 1,
       [sym__block_comment]), (ACTIONS 11, 1, [sym__documentation_block_comment]), (ACTIONS 4578,
       1, [anon_sym_LBRACE]), (ACTIONS 4586, 1, [anon_sym_implements]), (STATE 1742, 1,
       [sym_class_body]), (STATE 2023, 1, [sym__implements]), (STATE 3047, 1, [sym_interfaces]),
       (STATE 2582, 2, [sym_comment, sym_documentation_comment])]),
     (128400, 7, [(ACTIONS 3, 1, [anon_sym_SLASH_SLASH]), (ACTIONS 5, 1,
       [anon_sym_SLASH_STAR]), (ACTIONS 7, 1, [anon_sym_SLASH_SLASH_SLASH]), (ACTIONS 9, 1,
       [sym__block_comment]), (ACTIONS 11, 1, [sym__documentation_block_comment]), (STATE 2583,
       2, [sym_comment, sym_documentation_comment]), (ACTIONS 5578, 5,
       [sym__template_chars_double_single, anon_sym_DQUOTE, anon_sym_SQUOTE, anon_sym_DOLLAR,
       sym__unused_escape_sequence])]),
     (128427, 7, [(ACTIONS 3, 1, [anon_sym_SLASH_SLASH]), (ACTIONS 5, 1,
       [anon_sym_SLASH_STAR]), (ACTIONS 7, 1, [anon_sym_SLASH_SLASH_SLASH]), (ACTIONS 9, 1,
       [sym__block_comment]), (ACTIONS 11, 1, [sym__documentation_block_comment]), (STATE 2584,
       2, [sym_comment, sym_documentation_comment]), (ACTIONS 5580, 5,
       [sym__template_chars_single_single, anon_sym_DQUOTE, anon_sym_SQUOTE, anon_sym_DOLLAR,
       sym__unused_escape_sequence])]),
     (128454, 7, [(ACTIONS 3, 1, [anon_sym_SLASH_SLASH]), (ACTIONS 5, 1,
       [anon_sym_SLASH_STAR]), (ACTIONS 7, 1, [anon_sym_SLASH_SLASH_SLASH]), (ACTIONS 9, 1,
       [sym__block_comment]), (ACTIONS 11, 1, [sym__documentation_block_comment]), (STATE 2585,
       2, [sym_comment, sym_documentation_comment]), (ACTIONS 5382, 5,
       [sym__template_chars_double_single, anon_sym_DQUOTE, anon_sym_SQUOTE, anon_sym_DOLLAR,
       sym__unused_escape_sequence])]),
     (128481, 11, [(ACTIONS 3, 1, [anon_sym_SLASH_SLASH]), (ACTIONS 5, 1,
       [anon_sym_SLASH_STAR]), (ACTIONS 7, 1, [anon_sym_SLASH_SLASH_SLASH]), (ACTIONS 9, 1,
       [sym__block_comment]), (ACTIONS 11, 1, [sym__documentation_block_comment]), (ACTIONS 4578,
       1, [anon_sym_LBRACE]), (ACTIONS 4586, 1, [anon_sym_implements]), (STATE 1746, 1,
       [sym_class_body]), (STATE 2023, 1, [sym__implements]), (STATE 3197, 1, [sym_interfaces]),
       (STATE 2586, 2, [sym_comment, sym_documentation_comment])])]"

lemma small_run_845: "small_run 2581 128334 ts_small_parse_table_845 2587 128516"
  by (simp add: small_simps ts_small_parse_table_845_def)

definition ts_small_parse_table_846 :: "small_group list" where
  "ts_small_parse_table_846 = [
     (128516, 11, [(ACTIONS 3, 1, [anon_sym_SLASH_SLASH]), (ACTIONS 5, 1,
       [anon_sym_SLASH_STAR]), (ACTIONS 7, 1, [anon_sym_SLASH_SLASH_SLASH]), (ACTIONS 9, 1,
       [sym__block_comment]), (ACTIONS 11, 1, [sym__documentation_block_comment]), (ACTIONS 4586,
       1, [anon_sym_implements]), (ACTIONS 4971, 1, [anon_sym_LBRACE]), (STATE 1752, 1,
       [sym_enum_body]), (STATE 2023, 1, [sym__implements]), (STATE 3193, 1, [sym_interfaces]),
       (STATE 2587, 2, [sym_comment, sym_documentation_comment])]),
     (128551, 7, [(ACTIONS 3, 1, [anon_sym_SLASH_SLASH]), (ACTIONS 5, 1,
       [anon_sym_SLASH_STAR]), (ACTIONS 7, 1, [anon_sym_SLASH_SLASH_SLASH]), (ACTIONS 9, 1,
       [sym__block_comment]), (ACTIONS 11, 1, [sym__documentation_block_comment]), (STATE 2588,
       2, [sym_comment, sym_documentation_comment]), (ACTIONS 5582, 4, [anon_sym_RBRACE,
       anon_sym_COMMA, anon_sym_RBRACK, anon_sym_else])]),
     (128577, 8, [(ACTIONS 3, 1, [anon_sym_SLASH_SLASH]), (ACTIONS 5, 1,
       [anon_sym_SLASH_STAR]), (ACTIONS 7, 1, [anon_sym_SLASH_SLASH_SLASH]), (ACTIONS 9, 1,
       [sym__block_comment]), (ACTIONS 11, 1, [sym__documentation_block_comment]), (ACTIONS 5586,
       1, [anon_sym_else]), (STATE 2589, 2, [sym_comment, sym_documentation_comment]), (ACTIONS
       5584, 3, [anon_sym_RBRACE, anon_sym_COMMA, anon_sym_RBRACK])]),
     (128605, 7, [(ACTIONS 3, 1, [anon_sym_SLASH_SLASH]), (ACTIONS 5, 1,
       [anon_sym_SLASH_STAR]), (ACTIONS 7, 1, [anon_sym_SLASH_SLASH_SLASH]), (ACTIONS 9, 1,
       [sym__block_comment]), (ACTIONS 11, 1, [sym__documentation_block_comment]), (STATE 2590,
       2, [sym_comment, sym_documentation_comment]), (ACTIONS 5137, 4, [anon_sym_RBRACE,
       anon_sym_COMMA, anon_sym_RBRACK, anon_sym_RPAREN])]),
     (128631, 9, [(ACTIONS 3, 1, [anon_sym_SLASH_SLASH]), (ACTIONS 5, 1,
       [anon_sym_SLASH_STAR]), (ACTIONS 7, 1, [anon_sym_SLASH_SLASH_SLASH]), (ACTIONS 9, 1,
       [sym__block_comment]), (ACTIONS 11, 1, [sym__documentation_block_comment]), (ACTIONS 854,
       1, [sym_hex_integer_literal]), (STATE 2127, 1, [sym__numeric_literal]), (ACTIONS 852, 2,
       [sym_decimal_integer_literal, sym_decimal_floating_point_literal]), (STATE 2591, 2,
       [sym_comment, sym_documentation_comment])]),
     (128661, 10, [(ACTIONS 3, 1, [anon_sym_SLASH_SLASH]), (ACTIONS 5, 1,
       [anon_sym_SLASH_STAR]), (ACTIONS 7, 1, [anon_sym_SLASH_SLASH_SLASH]), (ACTIONS 9, 1,
       [sym__block_comment]), (ACTIONS 11, 1, [sym__documentation_block_comment]), (ACTIONS 3398,
       1, [anon_sym_LPAREN]), (ACTIONS 5588, 1, [anon_sym_DOT]), (STATE 2356, 1,
       [sym_arguments]), (STATE 3118, 1, [sym__dot_identifier]), (STATE 2592, 2, [sym_comment,
       sym_documentation_comment])]),
     (128693, 9, [(ACTIONS 3, 1, [anon_sym_SLASH_SLASH]), (ACTIONS 5, 1,
       [anon_sym_SLASH_STAR]), (ACTIONS 7, 1, [anon_sym_SLASH_SLASH_SLASH]), (ACTIONS 9, 1,
       [sym__block_comment]), (ACTIONS 11, 1, [sym__documentation_block_comment]), (ACTIONS 4584,
       1, [anon_sym_with]), (STATE 3204, 1, [sym_mixins]), (ACTIONS 5590, 2, [anon_sym_LBRACE,
       anon_sym_implements]), (STATE 2593, 2, [sym_comment, sym_documentation_comment])])]"

lemma small_run_846: "small_run 2587 128516 ts_small_parse_table_846 2594 128723"
  by (simp add: small_simps ts_small_parse_table_846_def)

definition ts_small_parse_table_847 :: "small_group list" where
  "ts_small_parse_table_847 = [
     (128723, 10, [(ACTIONS 3, 1, [anon_sym_SLASH_SLASH]), (ACTIONS 5, 1,
       [anon_sym_SLASH_STAR]), (ACTIONS 7, 1, [anon_sym_SLASH_SLASH_SLASH]), (ACTIONS 9, 1,
       [sym__block_comment]), (ACTIONS 11, 1, [sym__documentation_block_comment]), (ACTIONS 2042,
       1, [anon_sym_LBRACK]), (ACTIONS 3290, 1, [anon_sym_DOT]), (STATE 836, 1,
       [sym_index_selector]), (STATE 871, 1, [sym_unconditional_assignable_selector]), (STATE
       2594, 2, [sym_comment, sym_documentation_comment])]),
     (128755, 10, [(ACTIONS 3, 1, [anon_sym_SLASH_SLASH]), (ACTIONS 5, 1,
       [anon_sym_SLASH_STAR]), (ACTIONS 7, 1, [anon_sym_SLASH_SLASH_SLASH]), (ACTIONS 9, 1,
       [sym__block_comment]), (ACTIONS 11, 1, [sym__documentation_block_comment]), (ACTIONS 3398,
       1, [anon_sym_LPAREN]), (ACTIONS 5588, 1, [anon_sym_DOT]), (STATE 2397, 1,
       [sym_arguments]), (STATE 3061, 1, [sym__dot_identifier]), (STATE 2595, 2, [sym_comment,
       sym_documentation_comment])]),
     (128787, 10, [(ACTIONS 3, 1, [anon_sym_SLASH_SLASH]), (ACTIONS 5, 1,
       [anon_sym_SLASH_STAR]), (ACTIONS 7, 1, [anon_sym_SLASH_SLASH_SLASH]), (ACTIONS 9, 1,
       [sym__block_comment]), (ACTIONS 11, 1, [sym__documentation_block_comment]), (ACTIONS 5592,
       1, [anon_sym_Function]), (STATE 1704, 1, [sym__function_type_tail]), (STATE 2141, 1,
       [sym__function_builtin_identifier]), (STATE 2174, 1, [aux_sym__function_type_tails]),
       (STATE 2596, 2, [sym_comment, sym_documentation_comment])]),
     (128819, 7, [(ACTIONS 3, 1, [anon_sym_SLASH_SLASH]), (ACTIONS 5, 1,
       [anon_sym_SLASH_STAR]), (ACTIONS 7, 1, [anon_sym_SLASH_SLASH_SLASH]), (ACTIONS 9, 1,
       [sym__block_comment]), (ACTIONS 11, 1, [sym__documentation_block_comment]), (STATE 2597,
       2, [sym_comment, sym_documentation_comment]), (ACTIONS 5594, 4, [anon_sym_RBRACE,
       anon_sym_COMMA, anon_sym_RBRACK, anon_sym_else])]),
     (128845, 7, [(ACTIONS 3, 1, [anon_sym_SLASH_SLASH]), (ACTIONS 5, 1,
       [anon_sym_SLASH_STAR]), (ACTIONS 7, 1, [anon_sym_SLASH_SLASH_SLASH]), (ACTIONS 9, 1,
       [sym__block_comment]), (ACTIONS 11, 1, [sym__documentation_block_comment]), (STATE 2598,
       2, [sym_comment, sym_documentation_comment]), (ACTIONS 5596, 4, [anon_sym_RBRACE,
       anon_sym_COMMA, anon_sym_RBRACK, anon_sym_else])]),
     (128871, 7, [(ACTIONS 3, 1, [anon_sym_SLASH_SLASH]), (ACTIONS 5, 1,
       [anon_sym_SLASH_STAR]), (ACTIONS 7, 1, [anon_sym_SLASH_SLASH_SLASH]), (ACTIONS 9, 1,
       [sym__block_comment]), (ACTIONS 11, 1, [sym__documentation_block_comment]), (STATE 2599,
       2, [sym_comment, sym_documentation_comment]), (ACTIONS 5567, 4, [anon_sym_COMMA,
       anon_sym_SEMI, anon_sym_show, anon_sym_hide])]),
     (128897, 7, [(ACTIONS 3, 1, [anon_sym_SLASH_SLASH]), (ACTIONS 5, 1,
       [anon_sym_SLASH_STAR]), (ACTIONS 7, 1, [anon_sym_SLASH_SLASH_SLASH]), (ACTIONS 9, 1,
       [sym__block_comment]), (ACTIONS 11, 1, [sym__documentation_block_comment]), (STATE 2600,
       2, [sym_comment, sym_documentation_comment]), (ACTIONS 5598, 4, [anon_sym_RBRACE,
       anon_sym_COMMA, anon_sym_RBRACK, anon_sym_else])])]"

lemma small_run_847: "small_run 2594 128723 ts_small_parse_table_847 2601 128923"
  by (simp add: small_simps ts_small_parse_table_847_def)

definition ts_small_parse_table_848 :: "small_group list" where
  "ts_small_parse_table_848 = [
     (128923, 7, [(ACTIONS 3, 1, [anon_sym_SLASH_SLASH]), (ACTIONS 5, 1,
       [anon_sym_SLASH_STAR]), (ACTIONS 7, 1, [anon_sym_SLASH_SLASH_SLASH]), (ACTIONS 9, 1,
       [sym__block_comment]), (ACTIONS 11, 1, [sym__documentation_block_comment]), (STATE 2601,
       2, [sym_comment, sym_documentation_comment]), (ACTIONS 5600, 4, [anon_sym_RBRACE,
       anon_sym_COMMA, anon_sym_RBRACK, anon_sym_else])]),
     (128949, 10, [(ACTIONS 3, 1, [anon_sym_SLASH_SLASH]), (ACTIONS 5, 1,
       [anon_sym_SLASH_STAR]), (ACTIONS 7, 1, [anon_sym_SLASH_SLASH_SLASH]), (ACTIONS 9, 1,
       [sym__block_comment]), (ACTIONS 11, 1, [sym__documentation_block_comment]), (ACTIONS 4278,
       1, [anon_sym_LPAREN]), (ACTIONS 4594, 1, [anon_sym_EQ]), (STATE 2009, 1,
       [sym_formal_parameter_list]), (STATE 2016, 1, [sym__strict_formal_parameter_list]), (STATE
       2602, 2, [sym_comment, sym_documentation_comment])]),
     (128981, 10, [(ACTIONS 3, 1, [anon_sym_SLASH_SLASH]), (ACTIONS 5, 1,
       [anon_sym_SLASH_STAR]), (ACTIONS 7, 1, [anon_sym_SLASH_SLASH_SLASH]), (ACTIONS 9, 1,
       [sym__block_comment]), (ACTIONS 11, 1, [sym__documentation_block_comment]), (ACTIONS 5530,
       1, [anon_sym_new]), (ACTIONS 5602, 1, [sym_identifier]), (STATE 2078, 1,
       [sym__new_builtin]), (STATE 2108, 1, [sym__identifier_or_new]), (STATE 2603, 2,
       [sym_comment, sym_documentation_comment])]),
     (129013, 10, [(ACTIONS 3, 1, [anon_sym_SLASH_SLASH]), (ACTIONS 5, 1,
       [anon_sym_SLASH_STAR]), (ACTIONS 7, 1, [anon_sym_SLASH_SLASH_SLASH]), (ACTIONS 9, 1,
       [sym__block_comment]), (ACTIONS 11, 1, [sym__documentation_block_comment]), (ACTIONS 4278,
       1, [anon_sym_LPAREN]), (ACTIONS 5604, 1, [anon_sym_EQ]), (STATE 2009, 1,
       [sym_formal_parameter_list]), (STATE 2016, 1, [sym__strict_formal_parameter_list]), (STATE
       2604, 2, [sym_comment, sym_documentation_comment])]),
     (129045, 8, [(ACTIONS 3, 1, [anon_sym_SLASH_SLASH]), (ACTIONS 5, 1,
       [anon_sym_SLASH_STAR]), (ACTIONS 7, 1, [anon_sym_SLASH_SLASH_SLASH]), (ACTIONS 9, 1,
       [sym__block_comment]), (ACTIONS 11, 1, [sym__documentation_block_comment]), (ACTIONS 5608,
       1, [anon_sym_COMMA]), (ACTIONS 5606, 2, [anon_sym_RBRACE, anon_sym_RBRACK]), (STATE 2605,
       3, [sym_comment, sym_documentation_comment, aux_sym_list_literal_repeat1])]),
     (129073, 7, [(ACTIONS 3, 1, [anon_sym_SLASH_SLASH]), (ACTIONS 5, 1,
       [anon_sym_SLASH_STAR]), (ACTIONS 7, 1, [anon_sym_SLASH_SLASH_SLASH]), (ACTIONS 9, 1,
       [sym__block_comment]), (ACTIONS 11, 1, [sym__documentation_block_comment]), (STATE 2606,
       2, [sym_comment, sym_documentation_comment]), (ACTIONS 5611, 4, [anon_sym_RBRACE,
       anon_sym_COMMA, anon_sym_RBRACK, anon_sym_else])]),
     (129099, 10, [(ACTIONS 3, 1, [anon_sym_SLASH_SLASH]), (ACTIONS 5, 1,
       [anon_sym_SLASH_STAR]), (ACTIONS 7, 1, [anon_sym_SLASH_SLASH_SLASH]), (ACTIONS 9, 1,
       [sym__block_comment]), (ACTIONS 11, 1, [sym__documentation_block_comment]), (ACTIONS 2302,
       1, [anon_sym_LPAREN]), (ACTIONS 5588, 1, [anon_sym_DOT]), (STATE 1224, 1,
       [sym_arguments]), (STATE 3113, 1, [sym__dot_identifier]), (STATE 2607, 2, [sym_comment,
       sym_documentation_comment])])]"

lemma small_run_848: "small_run 2601 128923 ts_small_parse_table_848 2608 129131"
  by (simp add: small_simps ts_small_parse_table_848_def)

definition ts_small_parse_table_849 :: "small_group list" where
  "ts_small_parse_table_849 = [
     (129131, 10, [(ACTIONS 3, 1, [anon_sym_SLASH_SLASH]), (ACTIONS 5, 1,
       [anon_sym_SLASH_STAR]), (ACTIONS 7, 1, [anon_sym_SLASH_SLASH_SLASH]), (ACTIONS 9, 1,
       [sym__block_comment]), (ACTIONS 11, 1, [sym__documentation_block_comment]), (ACTIONS 3259,
       1, [anon_sym_Function]), (STATE 1293, 1, [sym__function_builtin_identifier]), (STATE 1310,
       1, [aux_sym__function_type_tails]), (STATE 1449, 1, [sym__function_type_tail]), (STATE
       2608, 2, [sym_comment, sym_documentation_comment])]),
     (129163, 10, [(ACTIONS 3, 1, [anon_sym_SLASH_SLASH]), (ACTIONS 5, 1,
       [anon_sym_SLASH_STAR]), (ACTIONS 7, 1, [anon_sym_SLASH_SLASH_SLASH]), (ACTIONS 9, 1,
       [sym__block_comment]), (ACTIONS 11, 1, [sym__documentation_block_comment]), (ACTIONS 2320,
       1, [anon_sym_LBRACK]), (ACTIONS 2325, 1, [anon_sym_DOT]), (STATE 1205, 1,
       [sym_unconditional_assignable_selector]), (STATE 1211, 1, [sym_index_selector]), (STATE
       2609, 2, [sym_comment, sym_documentation_comment])]),
     (129195, 9, [(ACTIONS 3, 1, [anon_sym_SLASH_SLASH]), (ACTIONS 5, 1,
       [anon_sym_SLASH_STAR]), (ACTIONS 7, 1, [anon_sym_SLASH_SLASH_SLASH]), (ACTIONS 9, 1,
       [sym__block_comment]), (ACTIONS 11, 1, [sym__documentation_block_comment]), (ACTIONS 4791,
       1, [anon_sym_SEMI]), (ACTIONS 5613, 1, [anon_sym_COLON]), (STATE 2610, 2, [sym_comment,
       sym_documentation_comment]), (STATE 3314, 2, [sym_initializers, sym_redirection])]),
     (129225, 10, [(ACTIONS 3, 1, [anon_sym_SLASH_SLASH]), (ACTIONS 5, 1,
       [anon_sym_SLASH_STAR]), (ACTIONS 7, 1, [anon_sym_SLASH_SLASH_SLASH]), (ACTIONS 9, 1,
       [sym__block_comment]), (ACTIONS 11, 1, [sym__documentation_block_comment]), (ACTIONS 5588,
       1, [anon_sym_DOT]), (ACTIONS 5615, 1, [anon_sym_LPAREN]), (STATE 2114, 1,
       [sym_arguments]), (STATE 3226, 1, [sym__dot_identifier]), (STATE 2611, 2, [sym_comment,
       sym_documentation_comment])]),
     (129257, 10, [(ACTIONS 3, 1, [anon_sym_SLASH_SLASH]), (ACTIONS 5, 1,
       [anon_sym_SLASH_STAR]), (ACTIONS 7, 1, [anon_sym_SLASH_SLASH_SLASH]), (ACTIONS 9, 1,
       [sym__block_comment]), (ACTIONS 11, 1, [sym__documentation_block_comment]), (ACTIONS 4586,
       1, [anon_sym_implements]), (ACTIONS 5617, 1, [anon_sym_SEMI]), (STATE 2023, 1,
       [sym__implements]), (STATE 3432, 1, [sym_interfaces]), (STATE 2612, 2, [sym_comment,
       sym_documentation_comment])]),
     (129289, 10, [(ACTIONS 3, 1, [anon_sym_SLASH_SLASH]), (ACTIONS 5, 1,
       [anon_sym_SLASH_STAR]), (ACTIONS 7, 1, [anon_sym_SLASH_SLASH_SLASH]), (ACTIONS 9, 1,
       [sym__block_comment]), (ACTIONS 11, 1, [sym__documentation_block_comment]), (ACTIONS 2160,
       1, [anon_sym_LPAREN]), (ACTIONS 5588, 1, [anon_sym_DOT]), (STATE 1144, 1,
       [sym_arguments]), (STATE 3231, 1, [sym__dot_identifier]), (STATE 2613, 2, [sym_comment,
       sym_documentation_comment])])]"

lemma small_run_849: "small_run 2608 129131 ts_small_parse_table_849 2614 129321"
  by (simp add: small_simps ts_small_parse_table_849_def)

definition ts_small_parse_table_850 :: "small_group list" where
  "ts_small_parse_table_850 = [
     (129321, 10, [(ACTIONS 3, 1, [anon_sym_SLASH_SLASH]), (ACTIONS 5, 1,
       [anon_sym_SLASH_STAR]), (ACTIONS 7, 1, [anon_sym_SLASH_SLASH_SLASH]), (ACTIONS 9, 1,
       [sym__block_comment]), (ACTIONS 11, 1, [sym__documentation_block_comment]), (ACTIONS 3498,
       1, [anon_sym_Function]), (STATE 1422, 1, [sym__function_builtin_identifier]), (STATE 1460,
       1, [aux_sym__function_type_tails]), (STATE 1615, 1, [sym__function_type_tail]), (STATE
       2614, 2, [sym_comment, sym_documentation_comment])]),
     (129353, 7, [(ACTIONS 3, 1, [anon_sym_SLASH_SLASH]), (ACTIONS 5, 1,
       [anon_sym_SLASH_STAR]), (ACTIONS 7, 1, [anon_sym_SLASH_SLASH_SLASH]), (ACTIONS 9, 1,
       [sym__block_comment]), (ACTIONS 11, 1, [sym__documentation_block_comment]), (STATE 2615,
       2, [sym_comment, sym_documentation_comment]), (ACTIONS 5619, 4, [anon_sym_RBRACE,
       anon_sym_COMMA, anon_sym_RBRACK, anon_sym_else])]),
     (129379, 8, [(ACTIONS 3, 1, [anon_sym_SLASH_SLASH]), (ACTIONS 5, 1,
       [anon_sym_SLASH_STAR]), (ACTIONS 7, 1, [anon_sym_SLASH_SLASH_SLASH]), (ACTIONS 9, 1,
       [sym__block_comment]), (ACTIONS 11, 1, [sym__documentation_block_comment]), (ACTIONS 5623,
       1, [anon_sym_LPAREN]), (STATE 2616, 2, [sym_comment, sym_documentation_comment]), (ACTIONS
       5621, 3, [sym_void_type, anon_sym_Function, sym_identifier])]),
     (129407, 10, [(ACTIONS 3, 1, [anon_sym_SLASH_SLASH]), (ACTIONS 5, 1,
       [anon_sym_SLASH_STAR]), (ACTIONS 7, 1, [anon_sym_SLASH_SLASH_SLASH]), (ACTIONS 9, 1,
       [sym__block_comment]), (ACTIONS 11, 1, [sym__documentation_block_comment]), (ACTIONS 1707,
       1, [anon_sym_factory]), (ACTIONS 5625, 1, [sym_identifier]), (STATE 3333, 1,
       [sym__factory]), (STATE 3520, 1, [sym_factory_constructor_signature]), (STATE 2617, 2,
       [sym_comment, sym_documentation_comment])]),
     (129439, 10, [(ACTIONS 3, 1, [anon_sym_SLASH_SLASH]), (ACTIONS 5, 1,
       [anon_sym_SLASH_STAR]), (ACTIONS 7, 1, [anon_sym_SLASH_SLASH_SLASH]), (ACTIONS 9, 1,
       [sym__block_comment]), (ACTIONS 11, 1, [sym__documentation_block_comment]), (ACTIONS 1707,
       1, [anon_sym_factory]), (ACTIONS 5625, 1, [sym_identifier]), (STATE 3239, 1,
       [sym_factory_constructor_signature]), (STATE 3312, 1, [sym__factory]), (STATE 2618, 2,
       [sym_comment, sym_documentation_comment])]),
     (129471, 10, [(ACTIONS 3, 1, [anon_sym_SLASH_SLASH]), (ACTIONS 5, 1,
       [anon_sym_SLASH_STAR]), (ACTIONS 7, 1, [anon_sym_SLASH_SLASH_SLASH]), (ACTIONS 9, 1,
       [sym__block_comment]), (ACTIONS 11, 1, [sym__documentation_block_comment]), (ACTIONS 3511,
       1, [anon_sym_LT]), (ACTIONS 5627, 1, [sym_identifier]), (ACTIONS 5629, 1, [anon_sym_on]),
       (STATE 3453, 1, [sym_type_parameters]), (STATE 2619, 2, [sym_comment,
       sym_documentation_comment])]),
     (129503, 10, [(ACTIONS 3, 1, [anon_sym_SLASH_SLASH]), (ACTIONS 5, 1,
       [anon_sym_SLASH_STAR]), (ACTIONS 7, 1, [anon_sym_SLASH_SLASH_SLASH]), (ACTIONS 9, 1,
       [sym__block_comment]), (ACTIONS 11, 1, [sym__documentation_block_comment]), (ACTIONS 155,
       1, [anon_sym_new]), (ACTIONS 5631, 1, [sym_identifier]), (STATE 2078, 1,
       [sym__new_builtin]), (STATE 2951, 1, [sym__identifier_or_new]), (STATE 2620, 2,
       [sym_comment, sym_documentation_comment])])]"

lemma small_run_850: "small_run 2614 129321 ts_small_parse_table_850 2621 129535"
  by (simp add: small_simps ts_small_parse_table_850_def)

definition ts_small_parse_table_851 :: "small_group list" where
  "ts_small_parse_table_851 = [
     (129535, 10, [(ACTIONS 3, 1, [anon_sym_SLASH_SLASH]), (ACTIONS 5, 1,
       [anon_sym_SLASH_STAR]), (ACTIONS 7, 1, [anon_sym_SLASH_SLASH_SLASH]), (ACTIONS 9, 1,
       [sym__block_comment]), (ACTIONS 11, 1, [sym__documentation_block_comment]), (ACTIONS 4278,
       1, [anon_sym_LPAREN]), (ACTIONS 5633, 1, [anon_sym_DOT]), (STATE 2016, 1,
       [sym__strict_formal_parameter_list]), (STATE 3054, 1, [sym_formal_parameter_list]), (STATE
       2621, 2, [sym_comment, sym_documentation_comment])]),
     (129567, 8, [(ACTIONS 3, 1, [anon_sym_SLASH_SLASH]), (ACTIONS 5, 1,
       [anon_sym_SLASH_STAR]), (ACTIONS 7, 1, [anon_sym_SLASH_SLASH_SLASH]), (ACTIONS 9, 1,
       [sym__block_comment]), (ACTIONS 11, 1, [sym__documentation_block_comment]), (ACTIONS 5637,
       1, [anon_sym_LPAREN]), (STATE 2622, 2, [sym_comment, sym_documentation_comment]), (ACTIONS
       5635, 3, [sym_void_type, anon_sym_Function, sym_identifier])]),
     (129595, 10, [(ACTIONS 3, 1, [anon_sym_SLASH_SLASH]), (ACTIONS 5, 1,
       [anon_sym_SLASH_STAR]), (ACTIONS 7, 1, [anon_sym_SLASH_SLASH_SLASH]), (ACTIONS 9, 1,
       [sym__block_comment]), (ACTIONS 11, 1, [sym__documentation_block_comment]), (ACTIONS 2302,
       1, [anon_sym_LPAREN]), (ACTIONS 5588, 1, [anon_sym_DOT]), (STATE 1263, 1,
       [sym_arguments]), (STATE 3106, 1, [sym__dot_identifier]), (STATE 2623, 2, [sym_comment,
       sym_documentation_comment])]),
     (129627, 10, [(ACTIONS 3, 1, [anon_sym_SLASH_SLASH]), (ACTIONS 5, 1,
       [anon_sym_SLASH_STAR]), (ACTIONS 7, 1, [anon_sym_SLASH_SLASH_SLASH]), (ACTIONS 9, 1,
       [sym__block_comment]), (ACTIONS 11, 1, [sym__documentation_block_comment]), (ACTIONS 474,
       1, [anon_sym_SEMI]), (ACTIONS 5639, 1, [anon_sym_COMMA]), (STATE 184, 1,
       [sym__semicolon]), (STATE 2658, 1, [aux_sym__for_loop_parts_repeat1]), (STATE 2624, 2,
       [sym_comment, sym_documentation_comment])]),
     (129659, 7, [(ACTIONS 3, 1, [anon_sym_SLASH_SLASH]), (ACTIONS 5, 1,
       [anon_sym_SLASH_STAR]), (ACTIONS 7, 1, [anon_sym_SLASH_SLASH_SLASH]), (ACTIONS 9, 1,
       [sym__block_comment]), (ACTIONS 11, 1, [sym__documentation_block_comment]), (STATE 2625,
       2, [sym_comment, sym_documentation_comment]), (ACTIONS 5641, 4, [anon_sym_RBRACE,
       anon_sym_COMMA, anon_sym_COLON, anon_sym_EQ])]),
     (129685, 10, [(ACTIONS 3, 1, [anon_sym_SLASH_SLASH]), (ACTIONS 5, 1,
       [anon_sym_SLASH_STAR]), (ACTIONS 7, 1, [anon_sym_SLASH_SLASH_SLASH]), (ACTIONS 9, 1,
       [sym__block_comment]), (ACTIONS 11, 1, [sym__documentation_block_comment]), (ACTIONS 4333,
       1, [anon_sym_LBRACK]), (ACTIONS 4337, 1, [anon_sym_DOT]), (STATE 1232, 1,
       [sym_index_selector]), (STATE 1259, 1, [sym_unconditional_assignable_selector]), (STATE
       2626, 2, [sym_comment, sym_documentation_comment])]),
     (129717, 7, [(ACTIONS 3, 1, [anon_sym_SLASH_SLASH]), (ACTIONS 5, 1,
       [anon_sym_SLASH_STAR]), (ACTIONS 7, 1, [anon_sym_SLASH_SLASH_SLASH]), (ACTIONS 9, 1,
       [sym__block_comment]), (ACTIONS 11, 1, [sym__documentation_block_comment]), (STATE 2627,
       2, [sym_comment, sym_documentation_comment]), (ACTIONS 5644, 4, [anon_sym_RBRACE,
       anon_sym_COMMA, anon_sym_COLON, anon_sym_EQ])])]"

lemma small_run_851: "small_run 2621 129535 ts_small_parse_table_851 2628 129743"
  by (simp add: small_simps ts_small_parse_table_851_def)

definition ts_small_parse_table_852 :: "small_group list" where
  "ts_small_parse_table_852 = [
     (129743, 8, [(ACTIONS 3, 1, [anon_sym_SLASH_SLASH]), (ACTIONS 5, 1,
       [anon_sym_SLASH_STAR]), (ACTIONS 7, 1, [anon_sym_SLASH_SLASH_SLASH]), (ACTIONS 9, 1,
       [sym__block_comment]), (ACTIONS 11, 1, [sym__documentation_block_comment]), (ACTIONS 5647,
       2, [anon_sym_RBRACE, anon_sym_COMMA]), (ACTIONS 5649, 2, [anon_sym_COLON, anon_sym_EQ]),
       (STATE 2628, 2, [sym_comment, sym_documentation_comment])]),
     (129771, 8, [(ACTIONS 3, 1, [anon_sym_SLASH_SLASH]), (ACTIONS 5, 1,
       [anon_sym_SLASH_STAR]), (ACTIONS 7, 1, [anon_sym_SLASH_SLASH_SLASH]), (ACTIONS 9, 1,
       [sym__block_comment]), (ACTIONS 11, 1, [sym__documentation_block_comment]), (ACTIONS 5653,
       1, [anon_sym_LPAREN]), (STATE 2629, 2, [sym_comment, sym_documentation_comment]), (ACTIONS
       5651, 3, [sym_void_type, anon_sym_Function, sym_identifier])]),
     (129799, 8, [(ACTIONS 3, 1, [anon_sym_SLASH_SLASH]), (ACTIONS 5, 1,
       [anon_sym_SLASH_STAR]), (ACTIONS 7, 1, [anon_sym_SLASH_SLASH_SLASH]), (ACTIONS 9, 1,
       [sym__block_comment]), (ACTIONS 11, 1, [sym__documentation_block_comment]), (ACTIONS 5655,
       1, [anon_sym_COMMA]), (ACTIONS 5658, 2, [anon_sym_RBRACK, anon_sym_RPAREN]), (STATE 2630,
       3, [sym_comment, sym_documentation_comment, aux_sym_parameter_type_list_repeat1])]),
     (129827, 10, [(ACTIONS 3, 1, [anon_sym_SLASH_SLASH]), (ACTIONS 5, 1,
       [anon_sym_SLASH_STAR]), (ACTIONS 7, 1, [anon_sym_SLASH_SLASH_SLASH]), (ACTIONS 9, 1,
       [sym__block_comment]), (ACTIONS 11, 1, [sym__documentation_block_comment]), (ACTIONS 5660,
       1, [anon_sym_RBRACE]), (ACTIONS 5662, 1, [anon_sym_COMMA]), (ACTIONS 5664, 1,
       [anon_sym_SEMI]), (STATE 2641, 1, [aux_sym_enum_body_repeat1]), (STATE 2631, 2,
       [sym_comment, sym_documentation_comment])]),
     (129859, 9, [(ACTIONS 3, 1, [anon_sym_SLASH_SLASH]), (ACTIONS 5, 1,
       [anon_sym_SLASH_STAR]), (ACTIONS 7, 1, [anon_sym_SLASH_SLASH_SLASH]), (ACTIONS 9, 1,
       [sym__block_comment]), (ACTIONS 11, 1, [sym__documentation_block_comment]), (ACTIONS 4739,
       1, [anon_sym_extends]), (STATE 3036, 1, [sym_type_bound]), (ACTIONS 5666, 2,
       [anon_sym_COMMA, anon_sym_GT]), (STATE 2632, 2, [sym_comment,
       sym_documentation_comment])]),
     (129889, 10, [(ACTIONS 3, 1, [anon_sym_SLASH_SLASH]), (ACTIONS 5, 1,
       [anon_sym_SLASH_STAR]), (ACTIONS 7, 1, [anon_sym_SLASH_SLASH_SLASH]), (ACTIONS 9, 1,
       [sym__block_comment]), (ACTIONS 11, 1, [sym__documentation_block_comment]), (ACTIONS 5592,
       1, [anon_sym_Function]), (STATE 1498, 1, [sym__function_builtin_identifier]), (STATE 1586,
       1, [aux_sym__function_type_tails]), (STATE 1704, 1, [sym__function_type_tail]), (STATE
       2633, 2, [sym_comment, sym_documentation_comment])]),
     (129921, 9, [(ACTIONS 3, 1, [anon_sym_SLASH_SLASH]), (ACTIONS 5, 1,
       [anon_sym_SLASH_STAR]), (ACTIONS 7, 1, [anon_sym_SLASH_SLASH_SLASH]), (ACTIONS 9, 1,
       [sym__block_comment]), (ACTIONS 11, 1, [sym__documentation_block_comment]), (ACTIONS 4739,
       1, [anon_sym_extends]), (STATE 3035, 1, [sym_type_bound]), (ACTIONS 5668, 2,
       [anon_sym_COMMA, anon_sym_GT]), (STATE 2634, 2, [sym_comment,
       sym_documentation_comment])])]"

lemma small_run_852: "small_run 2628 129743 ts_small_parse_table_852 2635 129951"
  by (simp add: small_simps ts_small_parse_table_852_def)

definition ts_small_parse_table_853 :: "small_group list" where
  "ts_small_parse_table_853 = [
     (129951, 10, [(ACTIONS 3, 1, [anon_sym_SLASH_SLASH]), (ACTIONS 5, 1,
       [anon_sym_SLASH_STAR]), (ACTIONS 7, 1, [anon_sym_SLASH_SLASH_SLASH]), (ACTIONS 9, 1,
       [sym__block_comment]), (ACTIONS 11, 1, [sym__documentation_block_comment]), (ACTIONS 2158,
       1, [anon_sym_LBRACK]), (ACTIONS 3352, 1, [anon_sym_DOT]), (STATE 1028, 1,
       [sym_unconditional_assignable_selector]), (STATE 1034, 1, [sym_index_selector]), (STATE
       2635, 2, [sym_comment, sym_documentation_comment])]),
     (129983, 10, [(ACTIONS 3, 1, [anon_sym_SLASH_SLASH]), (ACTIONS 5, 1,
       [anon_sym_SLASH_STAR]), (ACTIONS 7, 1, [anon_sym_SLASH_SLASH_SLASH]), (ACTIONS 9, 1,
       [sym__block_comment]), (ACTIONS 11, 1, [sym__documentation_block_comment]), (ACTIONS 155,
       1, [anon_sym_new]), (ACTIONS 5602, 1, [sym_identifier]), (STATE 2078, 1,
       [sym__new_builtin]), (STATE 2973, 1, [sym__identifier_or_new]), (STATE 2636, 2,
       [sym_comment, sym_documentation_comment])]),
     (130015, 10, [(ACTIONS 3, 1, [anon_sym_SLASH_SLASH]), (ACTIONS 5, 1,
       [anon_sym_SLASH_STAR]), (ACTIONS 7, 1, [anon_sym_SLASH_SLASH_SLASH]), (ACTIONS 9, 1,
       [sym__block_comment]), (ACTIONS 11, 1, [sym__documentation_block_comment]), (ACTIONS 3511,
       1, [anon_sym_LT]), (ACTIONS 5670, 1, [sym_identifier]), (ACTIONS 5672, 1, [anon_sym_on]),
       (STATE 3308, 1, [sym_type_parameters]), (STATE 2637, 2, [sym_comment,
       sym_documentation_comment])]),
     (130047, 10, [(ACTIONS 3, 1, [anon_sym_SLASH_SLASH]), (ACTIONS 5, 1,
       [anon_sym_SLASH_STAR]), (ACTIONS 7, 1, [anon_sym_SLASH_SLASH_SLASH]), (ACTIONS 9, 1,
       [sym__block_comment]), (ACTIONS 11, 1, [sym__documentation_block_comment]), (ACTIONS 2417,
       1, [anon_sym_Function]), (STATE 766, 1, [aux_sym__function_type_tails]), (STATE 777, 1,
       [sym__function_builtin_identifier]), (STATE 868, 1, [sym__function_type_tail]), (STATE
       2638, 2, [sym_comment, sym_documentation_comment])]),
     (130079, 8, [(ACTIONS 3, 1, [anon_sym_SLASH_SLASH]), (ACTIONS 5, 1,
       [anon_sym_SLASH_STAR]), (ACTIONS 7, 1, [anon_sym_SLASH_SLASH_SLASH]), (ACTIONS 9, 1,
       [sym__block_comment]), (ACTIONS 11, 1, [sym__documentation_block_comment]), (ACTIONS 5674,
       1, [sym_identifier]), (STATE 2639, 2, [sym_comment, sym_documentation_comment]), (ACTIONS
       5676, 3, [anon_sym_COMMA, anon_sym_RBRACK, anon_sym_RPAREN])]),
     (130107, 8, [(ACTIONS 3, 1, [anon_sym_SLASH_SLASH]), (ACTIONS 5, 1,
       [anon_sym_SLASH_STAR]), (ACTIONS 7, 1, [anon_sym_SLASH_SLASH_SLASH]), (ACTIONS 9, 1,
       [sym__block_comment]), (ACTIONS 11, 1, [sym__documentation_block_comment]), (ACTIONS 5680,
       1, [anon_sym_LPAREN]), (STATE 2640, 2, [sym_comment, sym_documentation_comment]), (ACTIONS
       5678, 3, [sym_void_type, anon_sym_Function, sym_identifier])]),
     (130135, 10, [(ACTIONS 3, 1, [anon_sym_SLASH_SLASH]), (ACTIONS 5, 1,
       [anon_sym_SLASH_STAR]), (ACTIONS 7, 1, [anon_sym_SLASH_SLASH_SLASH]), (ACTIONS 9, 1,
       [sym__block_comment]), (ACTIONS 11, 1, [sym__documentation_block_comment]), (ACTIONS 1883,
       1, [anon_sym_RBRACE]), (ACTIONS 5102, 1, [anon_sym_SEMI]), (ACTIONS 5682, 1,
       [anon_sym_COMMA]), (STATE 2655, 1, [aux_sym_enum_body_repeat1]), (STATE 2641, 2,
       [sym_comment, sym_documentation_comment])])]"

lemma small_run_853: "small_run 2635 129951 ts_small_parse_table_853 2642 130167"
  by (simp add: small_simps ts_small_parse_table_853_def)

definition ts_small_parse_table_854 :: "small_group list" where
  "ts_small_parse_table_854 = [
     (130167, 10, [(ACTIONS 3, 1, [anon_sym_SLASH_SLASH]), (ACTIONS 5, 1,
       [anon_sym_SLASH_STAR]), (ACTIONS 7, 1, [anon_sym_SLASH_SLASH_SLASH]), (ACTIONS 9, 1,
       [sym__block_comment]), (ACTIONS 11, 1, [sym__documentation_block_comment]), (ACTIONS 4303,
       1, [anon_sym_LBRACK]), (ACTIONS 4309, 1, [anon_sym_DOT]), (STATE 906, 1,
       [sym_index_selector]), (STATE 1018, 1, [sym_unconditional_assignable_selector]), (STATE
       2642, 2, [sym_comment, sym_documentation_comment])]),
     (130199, 7, [(ACTIONS 3, 1, [anon_sym_SLASH_SLASH]), (ACTIONS 5, 1,
       [anon_sym_SLASH_STAR]), (ACTIONS 7, 1, [anon_sym_SLASH_SLASH_SLASH]), (ACTIONS 9, 1,
       [sym__block_comment]), (ACTIONS 11, 1, [sym__documentation_block_comment]), (STATE 2643,
       2, [sym_comment, sym_documentation_comment]), (ACTIONS 5519, 4, [anon_sym_LBRACE,
       anon_sym_COMMA, anon_sym_SEMI, anon_sym_implements])]),
     (130225, 10, [(ACTIONS 3, 1, [anon_sym_SLASH_SLASH]), (ACTIONS 5, 1,
       [anon_sym_SLASH_STAR]), (ACTIONS 7, 1, [anon_sym_SLASH_SLASH_SLASH]), (ACTIONS 9, 1,
       [sym__block_comment]), (ACTIONS 11, 1, [sym__documentation_block_comment]), (ACTIONS 155,
       1, [anon_sym_new]), (ACTIONS 5684, 1, [sym_identifier]), (STATE 2078, 1,
       [sym__new_builtin]), (STATE 3235, 1, [sym__identifier_or_new]), (STATE 2644, 2,
       [sym_comment, sym_documentation_comment])]),
     (130257, 8, [(ACTIONS 3, 1, [anon_sym_SLASH_SLASH]), (ACTIONS 5, 1,
       [anon_sym_SLASH_STAR]), (ACTIONS 7, 1, [anon_sym_SLASH_SLASH_SLASH]), (ACTIONS 9, 1,
       [sym__block_comment]), (ACTIONS 11, 1, [sym__documentation_block_comment]), (ACTIONS 5688,
       1, [anon_sym_else]), (STATE 2645, 2, [sym_comment, sym_documentation_comment]), (ACTIONS
       5686, 3, [anon_sym_RBRACE, anon_sym_COMMA, anon_sym_RBRACK])]),
     (130285, 10, [(ACTIONS 3, 1, [anon_sym_SLASH_SLASH]), (ACTIONS 5, 1,
       [anon_sym_SLASH_STAR]), (ACTIONS 7, 1, [anon_sym_SLASH_SLASH_SLASH]), (ACTIONS 9, 1,
       [sym__block_comment]), (ACTIONS 11, 1, [sym__documentation_block_comment]), (ACTIONS 155,
       1, [anon_sym_new]), (ACTIONS 5690, 1, [sym_identifier]), (STATE 2078, 1,
       [sym__new_builtin]), (STATE 3235, 1, [sym__identifier_or_new]), (STATE 2646, 2,
       [sym_comment, sym_documentation_comment])]),
     (130317, 9, [(ACTIONS 3, 1, [anon_sym_SLASH_SLASH]), (ACTIONS 5, 1,
       [anon_sym_SLASH_STAR]), (ACTIONS 7, 1, [anon_sym_SLASH_SLASH_SLASH]), (ACTIONS 9, 1,
       [sym__block_comment]), (ACTIONS 11, 1, [sym__documentation_block_comment]), (ACTIONS 4739,
       1, [anon_sym_extends]), (STATE 3008, 1, [sym_type_bound]), (ACTIONS 5692, 2,
       [anon_sym_COMMA, anon_sym_GT]), (STATE 2647, 2, [sym_comment,
       sym_documentation_comment])]),
     (130347, 10, [(ACTIONS 3, 1, [anon_sym_SLASH_SLASH]), (ACTIONS 5, 1,
       [anon_sym_SLASH_STAR]), (ACTIONS 7, 1, [anon_sym_SLASH_SLASH_SLASH]), (ACTIONS 9, 1,
       [sym__block_comment]), (ACTIONS 11, 1, [sym__documentation_block_comment]), (ACTIONS 4303,
       1, [anon_sym_LBRACK]), (ACTIONS 4309, 1, [anon_sym_DOT]), (STATE 906, 1,
       [sym_index_selector]), (STATE 920, 1, [sym_unconditional_assignable_selector]), (STATE
       2648, 2, [sym_comment, sym_documentation_comment])])]"

lemma small_run_854: "small_run 2642 130167 ts_small_parse_table_854 2649 130379"
  by (simp add: small_simps ts_small_parse_table_854_def)

definition ts_small_parse_table_855 :: "small_group list" where
  "ts_small_parse_table_855 = [
     (130379, 10, [(ACTIONS 3, 1, [anon_sym_SLASH_SLASH]), (ACTIONS 5, 1,
       [anon_sym_SLASH_STAR]), (ACTIONS 7, 1, [anon_sym_SLASH_SLASH_SLASH]), (ACTIONS 9, 1,
       [sym__block_comment]), (ACTIONS 11, 1, [sym__documentation_block_comment]), (ACTIONS 3389,
       1, [anon_sym_Function]), (STATE 1336, 1, [sym__function_builtin_identifier]), (STATE 1363,
       1, [aux_sym__function_type_tails]), (STATE 1551, 1, [sym__function_type_tail]), (STATE
       2649, 2, [sym_comment, sym_documentation_comment])]),
     (130411, 10, [(ACTIONS 3, 1, [anon_sym_SLASH_SLASH]), (ACTIONS 5, 1,
       [anon_sym_SLASH_STAR]), (ACTIONS 7, 1, [anon_sym_SLASH_SLASH_SLASH]), (ACTIONS 9, 1,
       [sym__block_comment]), (ACTIONS 11, 1, [sym__documentation_block_comment]), (ACTIONS 2160,
       1, [anon_sym_LPAREN]), (ACTIONS 5588, 1, [anon_sym_DOT]), (STATE 1182, 1,
       [sym_arguments]), (STATE 3238, 1, [sym__dot_identifier]), (STATE 2650, 2, [sym_comment,
       sym_documentation_comment])]),
     (130443, 8, [(ACTIONS 3, 1, [anon_sym_SLASH_SLASH]), (ACTIONS 5, 1,
       [anon_sym_SLASH_STAR]), (ACTIONS 7, 1, [anon_sym_SLASH_SLASH_SLASH]), (ACTIONS 9, 1,
       [sym__block_comment]), (ACTIONS 11, 1, [sym__documentation_block_comment]), (ACTIONS 5674,
       1, [sym_identifier]), (STATE 2651, 2, [sym_comment, sym_documentation_comment]), (ACTIONS
       5694, 3, [anon_sym_COMMA, anon_sym_RBRACK, anon_sym_RPAREN])]),
     (130471, 10, [(ACTIONS 3, 1, [anon_sym_SLASH_SLASH]), (ACTIONS 5, 1,
       [anon_sym_SLASH_STAR]), (ACTIONS 7, 1, [anon_sym_SLASH_SLASH_SLASH]), (ACTIONS 9, 1,
       [sym__block_comment]), (ACTIONS 11, 1, [sym__documentation_block_comment]), (ACTIONS 5696,
       1, [anon_sym_LBRACE]), (ACTIONS 5698, 1, [anon_sym_catch]), (STATE 484, 1, [sym_block]),
       (STATE 3090, 1, [sym_catch_clause]), (STATE 2652, 2, [sym_comment,
       sym_documentation_comment])]),
     (130503, 9, [(ACTIONS 3, 1, [anon_sym_SLASH_SLASH]), (ACTIONS 5, 1,
       [anon_sym_SLASH_STAR]), (ACTIONS 7, 1, [anon_sym_SLASH_SLASH_SLASH]), (ACTIONS 9, 1,
       [sym__block_comment]), (ACTIONS 11, 1, [sym__documentation_block_comment]), (ACTIONS 4739,
       1, [anon_sym_extends]), (STATE 3270, 1, [sym_type_bound]), (ACTIONS 5459, 2,
       [anon_sym_COMMA, anon_sym_GT]), (STATE 2653, 2, [sym_comment,
       sym_documentation_comment])]),
     (130533, 8, [(ACTIONS 3, 1, [anon_sym_SLASH_SLASH]), (ACTIONS 5, 1,
       [anon_sym_SLASH_STAR]), (ACTIONS 7, 1, [anon_sym_SLASH_SLASH_SLASH]), (ACTIONS 9, 1,
       [sym__block_comment]), (ACTIONS 11, 1, [sym__documentation_block_comment]), (ACTIONS 5700,
       2, [anon_sym_RBRACE, anon_sym_COMMA]), (ACTIONS 5702, 2, [anon_sym_COLON, anon_sym_EQ]),
       (STATE 2654, 2, [sym_comment, sym_documentation_comment])]),
     (130561, 8, [(ACTIONS 3, 1, [anon_sym_SLASH_SLASH]), (ACTIONS 5, 1,
       [anon_sym_SLASH_STAR]), (ACTIONS 7, 1, [anon_sym_SLASH_SLASH_SLASH]), (ACTIONS 9, 1,
       [sym__block_comment]), (ACTIONS 11, 1, [sym__documentation_block_comment]), (ACTIONS 5706,
       1, [anon_sym_COMMA]), (ACTIONS 5704, 2, [anon_sym_RBRACE, anon_sym_SEMI]), (STATE 2655, 3,
       [sym_comment, sym_documentation_comment, aux_sym_enum_body_repeat1])])]"

lemma small_run_855: "small_run 2649 130379 ts_small_parse_table_855 2656 130589"
  by (simp add: small_simps ts_small_parse_table_855_def)

definition ts_small_parse_table_856 :: "small_group list" where
  "ts_small_parse_table_856 = [
     (130589, 10, [(ACTIONS 3, 1, [anon_sym_SLASH_SLASH]), (ACTIONS 5, 1,
       [anon_sym_SLASH_STAR]), (ACTIONS 7, 1, [anon_sym_SLASH_SLASH_SLASH]), (ACTIONS 9, 1,
       [sym__block_comment]), (ACTIONS 11, 1, [sym__documentation_block_comment]), (ACTIONS 4341,
       1, [anon_sym_LBRACK]), (ACTIONS 4345, 1, [anon_sym_DOT]), (STATE 1090, 1,
       [sym_index_selector]), (STATE 1101, 1, [sym_unconditional_assignable_selector]), (STATE
       2656, 2, [sym_comment, sym_documentation_comment])]),
     (130621, 10, [(ACTIONS 3, 1, [anon_sym_SLASH_SLASH]), (ACTIONS 5, 1,
       [anon_sym_SLASH_STAR]), (ACTIONS 7, 1, [anon_sym_SLASH_SLASH_SLASH]), (ACTIONS 9, 1,
       [sym__block_comment]), (ACTIONS 11, 1, [sym__documentation_block_comment]), (ACTIONS 2001,
       1, [anon_sym_LPAREN]), (ACTIONS 5588, 1, [anon_sym_DOT]), (STATE 963, 1, [sym_arguments]),
       (STATE 3050, 1, [sym__dot_identifier]), (STATE 2657, 2, [sym_comment,
       sym_documentation_comment])]),
     (130653, 10, [(ACTIONS 3, 1, [anon_sym_SLASH_SLASH]), (ACTIONS 5, 1,
       [anon_sym_SLASH_STAR]), (ACTIONS 7, 1, [anon_sym_SLASH_SLASH_SLASH]), (ACTIONS 9, 1,
       [sym__block_comment]), (ACTIONS 11, 1, [sym__documentation_block_comment]), (ACTIONS 474,
       1, [anon_sym_SEMI]), (ACTIONS 5639, 1, [anon_sym_COMMA]), (STATE 188, 1,
       [sym__semicolon]), (STATE 2711, 1, [aux_sym__for_loop_parts_repeat1]), (STATE 2658, 2,
       [sym_comment, sym_documentation_comment])]),
     (130685, 8, [(ACTIONS 3, 1, [anon_sym_SLASH_SLASH]), (ACTIONS 5, 1,
       [anon_sym_SLASH_STAR]), (ACTIONS 7, 1, [anon_sym_SLASH_SLASH_SLASH]), (ACTIONS 9, 1,
       [sym__block_comment]), (ACTIONS 11, 1, [sym__documentation_block_comment]), (ACTIONS 5711,
       1, [anon_sym_LPAREN]), (STATE 2659, 2, [sym_comment, sym_documentation_comment]), (ACTIONS
       5709, 3, [sym_void_type, anon_sym_Function, sym_identifier])]),
     (130713, 7, [(ACTIONS 3, 1, [anon_sym_SLASH_SLASH]), (ACTIONS 5, 1,
       [anon_sym_SLASH_STAR]), (ACTIONS 7, 1, [anon_sym_SLASH_SLASH_SLASH]), (ACTIONS 9, 1,
       [sym__block_comment]), (ACTIONS 11, 1, [sym__documentation_block_comment]), (STATE 2660,
       2, [sym_comment, sym_documentation_comment]), (ACTIONS 5446, 4, [anon_sym_RBRACE,
       anon_sym_COMMA, anon_sym_RBRACK, anon_sym_else])]),
     (130739, 10, [(ACTIONS 3, 1, [anon_sym_SLASH_SLASH]), (ACTIONS 5, 1,
       [anon_sym_SLASH_STAR]), (ACTIONS 7, 1, [anon_sym_SLASH_SLASH_SLASH]), (ACTIONS 9, 1,
       [sym__block_comment]), (ACTIONS 11, 1, [sym__documentation_block_comment]), (ACTIONS 3161,
       1, [anon_sym_LT]), (ACTIONS 4422, 1, [anon_sym_LPAREN]), (ACTIONS 4424, 1,
       [anon_sym_DOT]), (STATE 3211, 1, [sym_type_arguments]), (STATE 2661, 2, [sym_comment,
       sym_documentation_comment])]),
     (130771, 8, [(ACTIONS 3, 1, [anon_sym_SLASH_SLASH]), (ACTIONS 5, 1,
       [anon_sym_SLASH_STAR]), (ACTIONS 7, 1, [anon_sym_SLASH_SLASH_SLASH]), (ACTIONS 9, 1,
       [sym__block_comment]), (ACTIONS 11, 1, [sym__documentation_block_comment]), (ACTIONS 5713,
       2, [anon_sym_RBRACE, anon_sym_COMMA]), (ACTIONS 5715, 2, [anon_sym_COLON, anon_sym_EQ]),
       (STATE 2662, 2, [sym_comment, sym_documentation_comment])])]"

lemma small_run_856: "small_run 2656 130589 ts_small_parse_table_856 2663 130799"
  by (simp add: small_simps ts_small_parse_table_856_def)

definition ts_small_parse_table_857 :: "small_group list" where
  "ts_small_parse_table_857 = [
     (130799, 10, [(ACTIONS 3, 1, [anon_sym_SLASH_SLASH]), (ACTIONS 5, 1,
       [anon_sym_SLASH_STAR]), (ACTIONS 7, 1, [anon_sym_SLASH_SLASH_SLASH]), (ACTIONS 9, 1,
       [sym__block_comment]), (ACTIONS 11, 1, [sym__documentation_block_comment]), (ACTIONS 3161,
       1, [anon_sym_LT]), (ACTIONS 4422, 1, [anon_sym_LPAREN]), (ACTIONS 5717, 1,
       [anon_sym_DOT]), (STATE 3137, 1, [sym_type_arguments]), (STATE 2663, 2, [sym_comment,
       sym_documentation_comment])]),
     (130831, 10, [(ACTIONS 3, 1, [anon_sym_SLASH_SLASH]), (ACTIONS 5, 1,
       [anon_sym_SLASH_STAR]), (ACTIONS 7, 1, [anon_sym_SLASH_SLASH_SLASH]), (ACTIONS 9, 1,
       [sym__block_comment]), (ACTIONS 11, 1, [sym__documentation_block_comment]), (ACTIONS 2724,
       1, [anon_sym_Function]), (STATE 851, 1, [sym__function_builtin_identifier]), (STATE 878,
       1, [aux_sym__function_type_tails]), (STATE 1071, 1, [sym__function_type_tail]), (STATE
       2664, 2, [sym_comment, sym_documentation_comment])]),
     (130863, 8, [(ACTIONS 3, 1, [anon_sym_SLASH_SLASH]), (ACTIONS 5, 1,
       [anon_sym_SLASH_STAR]), (ACTIONS 7, 1, [anon_sym_SLASH_SLASH_SLASH]), (ACTIONS 9, 1,
       [sym__block_comment]), (ACTIONS 11, 1, [sym__documentation_block_comment]), (ACTIONS 5721,
       1, [anon_sym_RBRACE]), (STATE 2665, 2, [sym_comment, sym_documentation_comment]), (ACTIONS
       5719, 3, [anon_sym_default, anon_sym_case, sym_identifier])]),
     (130891, 8, [(ACTIONS 3, 1, [anon_sym_SLASH_SLASH]), (ACTIONS 5, 1,
       [anon_sym_SLASH_STAR]), (ACTIONS 7, 1, [anon_sym_SLASH_SLASH_SLASH]), (ACTIONS 9, 1,
       [sym__block_comment]), (ACTIONS 11, 1, [sym__documentation_block_comment]), (ACTIONS 5725,
       1, [anon_sym_when]), (STATE 2666, 2, [sym_comment, sym_documentation_comment]), (ACTIONS
       5723, 3, [anon_sym_COLON, anon_sym_RPAREN, anon_sym_EQ_GT])]),
     (130919, 10, [(ACTIONS 3, 1, [anon_sym_SLASH_SLASH]), (ACTIONS 5, 1,
       [anon_sym_SLASH_STAR]), (ACTIONS 7, 1, [anon_sym_SLASH_SLASH_SLASH]), (ACTIONS 9, 1,
       [sym__block_comment]), (ACTIONS 11, 1, [sym__documentation_block_comment]), (ACTIONS 5552,
       1, [anon_sym_COMMA]), (ACTIONS 5554, 1, [anon_sym_EQ]), (ACTIONS 5556, 1,
       [anon_sym_SEMI]), (STATE 2673, 1, [aux_sym_initialized_identifier_list_repeat1]), (STATE
       2667, 2, [sym_comment, sym_documentation_comment])]),
     (130951, 10, [(ACTIONS 3, 1, [anon_sym_SLASH_SLASH]), (ACTIONS 5, 1,
       [anon_sym_SLASH_STAR]), (ACTIONS 7, 1, [anon_sym_SLASH_SLASH_SLASH]), (ACTIONS 9, 1,
       [sym__block_comment]), (ACTIONS 11, 1, [sym__documentation_block_comment]), (ACTIONS 4341,
       1, [anon_sym_LBRACK]), (ACTIONS 4345, 1, [anon_sym_DOT]), (STATE 1090, 1,
       [sym_index_selector]), (STATE 1100, 1, [sym_unconditional_assignable_selector]), (STATE
       2668, 2, [sym_comment, sym_documentation_comment])]),
     (130983, 10, [(ACTIONS 3, 1, [anon_sym_SLASH_SLASH]), (ACTIONS 5, 1,
       [anon_sym_SLASH_STAR]), (ACTIONS 7, 1, [anon_sym_SLASH_SLASH_SLASH]), (ACTIONS 9, 1,
       [sym__block_comment]), (ACTIONS 11, 1, [sym__documentation_block_comment]), (ACTIONS 2001,
       1, [anon_sym_LPAREN]), (ACTIONS 5588, 1, [anon_sym_DOT]), (STATE 911, 1, [sym_arguments]),
       (STATE 3017, 1, [sym__dot_identifier]), (STATE 2669, 2, [sym_comment,
       sym_documentation_comment])])]"

lemma small_run_857: "small_run 2663 130799 ts_small_parse_table_857 2670 131015"
  by (simp add: small_simps ts_small_parse_table_857_def)

definition ts_small_parse_table_858 :: "small_group list" where
  "ts_small_parse_table_858 = [
     (131015, 9, [(ACTIONS 3, 1, [anon_sym_SLASH_SLASH]), (ACTIONS 5, 1,
       [anon_sym_SLASH_STAR]), (ACTIONS 7, 1, [anon_sym_SLASH_SLASH_SLASH]), (ACTIONS 9, 1,
       [sym__block_comment]), (ACTIONS 11, 1, [sym__documentation_block_comment]), (ACTIONS 5727,
       1, [anon_sym_COMMA]), (ACTIONS 5729, 1, [anon_sym_RPAREN]), (STATE 2751, 1,
       [aux_sym_record_type_repeat1]), (STATE 2670, 2, [sym_comment,
       sym_documentation_comment])]),
     (131044, 9, [(ACTIONS 3, 1, [anon_sym_SLASH_SLASH]), (ACTIONS 5, 1,
       [anon_sym_SLASH_STAR]), (ACTIONS 7, 1, [anon_sym_SLASH_SLASH_SLASH]), (ACTIONS 9, 1,
       [sym__block_comment]), (ACTIONS 11, 1, [sym__documentation_block_comment]), (ACTIONS 5106,
       1, [anon_sym_SEMI]), (ACTIONS 5331, 1, [anon_sym_native]), (STATE 2526, 1, [sym__native]),
       (STATE 2671, 2, [sym_comment, sym_documentation_comment])]),
     (131073, 9, [(ACTIONS 3, 1, [anon_sym_SLASH_SLASH]), (ACTIONS 5, 1,
       [anon_sym_SLASH_STAR]), (ACTIONS 7, 1, [anon_sym_SLASH_SLASH_SLASH]), (ACTIONS 9, 1,
       [sym__block_comment]), (ACTIONS 11, 1, [sym__documentation_block_comment]), (ACTIONS 5731,
       1, [anon_sym_RBRACE]), (ACTIONS 5733, 1, [anon_sym_COMMA]), (STATE 2678, 1,
       [aux_sym_record_type_repeat2]), (STATE 2672, 2, [sym_comment,
       sym_documentation_comment])]),
     (131102, 9, [(ACTIONS 3, 1, [anon_sym_SLASH_SLASH]), (ACTIONS 5, 1,
       [anon_sym_SLASH_STAR]), (ACTIONS 7, 1, [anon_sym_SLASH_SLASH_SLASH]), (ACTIONS 9, 1,
       [sym__block_comment]), (ACTIONS 11, 1, [sym__documentation_block_comment]), (ACTIONS 5552,
       1, [anon_sym_COMMA]), (ACTIONS 5735, 1, [anon_sym_SEMI]), (STATE 2707, 1,
       [aux_sym_initialized_identifier_list_repeat1]), (STATE 2673, 2, [sym_comment,
       sym_documentation_comment])]),
     (131131, 9, [(ACTIONS 3, 1, [anon_sym_SLASH_SLASH]), (ACTIONS 5, 1,
       [anon_sym_SLASH_STAR]), (ACTIONS 7, 1, [anon_sym_SLASH_SLASH_SLASH]), (ACTIONS 9, 1,
       [sym__block_comment]), (ACTIONS 11, 1, [sym__documentation_block_comment]), (ACTIONS 590,
       1, [anon_sym_RBRACK]), (ACTIONS 5737, 1, [anon_sym_COMMA]), (STATE 2605, 1,
       [aux_sym_list_literal_repeat1]), (STATE 2674, 2, [sym_comment,
       sym_documentation_comment])]),
     (131160, 9, [(ACTIONS 3, 1, [anon_sym_SLASH_SLASH]), (ACTIONS 5, 1,
       [anon_sym_SLASH_STAR]), (ACTIONS 7, 1, [anon_sym_SLASH_SLASH_SLASH]), (ACTIONS 9, 1,
       [sym__block_comment]), (ACTIONS 11, 1, [sym__documentation_block_comment]), (ACTIONS 5173,
       1, [anon_sym_SEMI]), (ACTIONS 5331, 1, [anon_sym_native]), (STATE 2492, 1, [sym__native]),
       (STATE 2675, 2, [sym_comment, sym_documentation_comment])]),
     (131189, 9, [(ACTIONS 3, 1, [anon_sym_SLASH_SLASH]), (ACTIONS 5, 1,
       [anon_sym_SLASH_STAR]), (ACTIONS 7, 1, [anon_sym_SLASH_SLASH_SLASH]), (ACTIONS 9, 1,
       [sym__block_comment]), (ACTIONS 11, 1, [sym__documentation_block_comment]), (ACTIONS 5222,
       1, [anon_sym_SEMI]), (ACTIONS 5331, 1, [anon_sym_native]), (STATE 2493, 1, [sym__native]),
       (STATE 2676, 2, [sym_comment, sym_documentation_comment])])]"

lemma small_run_858: "small_run 2670 131015 ts_small_parse_table_858 2677 131218"
  by (simp add: small_simps ts_small_parse_table_858_def)

definition ts_small_parse_table_859 :: "small_group list" where
  "ts_small_parse_table_859 = [
     (131218, 9, [(ACTIONS 3, 1, [anon_sym_SLASH_SLASH]), (ACTIONS 5, 1,
       [anon_sym_SLASH_STAR]), (ACTIONS 7, 1, [anon_sym_SLASH_SLASH_SLASH]), (ACTIONS 9, 1,
       [sym__block_comment]), (ACTIONS 11, 1, [sym__documentation_block_comment]), (ACTIONS 5509,
       1, [anon_sym_COMMA]), (ACTIONS 5739, 1, [anon_sym_RPAREN]), (STATE 2793, 1,
       [aux_sym__for_loop_parts_repeat2]), (STATE 2677, 2, [sym_comment,
       sym_documentation_comment])]),
     (131247, 9, [(ACTIONS 3, 1, [anon_sym_SLASH_SLASH]), (ACTIONS 5, 1,
       [anon_sym_SLASH_STAR]), (ACTIONS 7, 1, [anon_sym_SLASH_SLASH_SLASH]), (ACTIONS 9, 1,
       [sym__block_comment]), (ACTIONS 11, 1, [sym__documentation_block_comment]), (ACTIONS 4202,
       1, [anon_sym_RBRACE]), (ACTIONS 5741, 1, [anon_sym_COMMA]), (STATE 2734, 1,
       [aux_sym_record_type_repeat2]), (STATE 2678, 2, [sym_comment,
       sym_documentation_comment])]),
     (131276, 9, [(ACTIONS 3, 1, [anon_sym_SLASH_SLASH]), (ACTIONS 5, 1,
       [anon_sym_SLASH_STAR]), (ACTIONS 7, 1, [anon_sym_SLASH_SLASH_SLASH]), (ACTIONS 9, 1,
       [sym__block_comment]), (ACTIONS 11, 1, [sym__documentation_block_comment]), (ACTIONS 5509,
       1, [anon_sym_COMMA]), (ACTIONS 5743, 1, [anon_sym_RPAREN]), (STATE 2796, 1,
       [aux_sym__for_loop_parts_repeat2]), (STATE 2679, 2, [sym_comment,
       sym_documentation_comment])]),
     (131305, 9, [(ACTIONS 3, 1, [anon_sym_SLASH_SLASH]), (ACTIONS 5, 1,
       [anon_sym_SLASH_STAR]), (ACTIONS 7, 1, [anon_sym_SLASH_SLASH_SLASH]), (ACTIONS 9, 1,
       [sym__block_comment]), (ACTIONS 11, 1, [sym__documentation_block_comment]), (ACTIONS 5063,
       1, [anon_sym_SEMI]), (ACTIONS 5331, 1, [anon_sym_native]), (STATE 2460, 1, [sym__native]),
       (STATE 2680, 2, [sym_comment, sym_documentation_comment])]),
     (131334, 9, [(ACTIONS 3, 1, [anon_sym_SLASH_SLASH]), (ACTIONS 5, 1,
       [anon_sym_SLASH_STAR]), (ACTIONS 7, 1, [anon_sym_SLASH_SLASH_SLASH]), (ACTIONS 9, 1,
       [sym__block_comment]), (ACTIONS 11, 1, [sym__documentation_block_comment]), (ACTIONS 5745,
       1, [anon_sym_RBRACE]), (ACTIONS 5747, 1, [anon_sym_COMMA]), (STATE 2811, 1,
       [aux_sym_switch_expression_repeat1]), (STATE 2681, 2, [sym_comment,
       sym_documentation_comment])]),
     (131363, 8, [(ACTIONS 3, 1, [anon_sym_SLASH_SLASH]), (ACTIONS 5, 1,
       [anon_sym_SLASH_STAR]), (ACTIONS 7, 1, [anon_sym_SLASH_SLASH_SLASH]), (ACTIONS 9, 1,
       [sym__block_comment]), (ACTIONS 11, 1, [sym__documentation_block_comment]), (ACTIONS 5749,
       1, [anon_sym_COMMA]), (ACTIONS 5752, 1, [anon_sym_RPAREN]), (STATE 2682, 3, [sym_comment,
       sym_documentation_comment, aux_sym_record_pattern_repeat1])]),
     (131390, 9, [(ACTIONS 3, 1, [anon_sym_SLASH_SLASH]), (ACTIONS 5, 1,
       [anon_sym_SLASH_STAR]), (ACTIONS 7, 1, [anon_sym_SLASH_SLASH_SLASH]), (ACTIONS 9, 1,
       [sym__block_comment]), (ACTIONS 11, 1, [sym__documentation_block_comment]), (ACTIONS 5754,
       1, [anon_sym_COMMA]), (ACTIONS 5756, 1, [anon_sym_GT]), (STATE 2989, 1,
       [aux_sym_type_arguments_repeat1]), (STATE 2683, 2, [sym_comment,
       sym_documentation_comment])])]"

lemma small_run_859: "small_run 2677 131218 ts_small_parse_table_859 2684 131419"
  by (simp add: small_simps ts_small_parse_table_859_def)

definition ts_small_parse_table_860 :: "small_group list" where
  "ts_small_parse_table_860 = [
     (131419, 9, [(ACTIONS 3, 1, [anon_sym_SLASH_SLASH]), (ACTIONS 5, 1,
       [anon_sym_SLASH_STAR]), (ACTIONS 7, 1, [anon_sym_SLASH_SLASH_SLASH]), (ACTIONS 9, 1,
       [sym__block_comment]), (ACTIONS 11, 1, [sym__documentation_block_comment]), (ACTIONS 5552,
       1, [anon_sym_COMMA]), (ACTIONS 5758, 1, [anon_sym_SEMI]), (STATE 2707, 1,
       [aux_sym_initialized_identifier_list_repeat1]), (STATE 2684, 2, [sym_comment,
       sym_documentation_comment])]),
     (131448, 9, [(ACTIONS 3, 1, [anon_sym_SLASH_SLASH]), (ACTIONS 5, 1,
       [anon_sym_SLASH_STAR]), (ACTIONS 7, 1, [anon_sym_SLASH_SLASH_SLASH]), (ACTIONS 9, 1,
       [sym__block_comment]), (ACTIONS 11, 1, [sym__documentation_block_comment]), (ACTIONS 5754,
       1, [anon_sym_COMMA]), (ACTIONS 5760, 1, [anon_sym_GT]), (STATE 2683, 1,
       [aux_sym_type_arguments_repeat1]), (STATE 2685, 2, [sym_comment,
       sym_documentation_comment])]),
     (131477, 9, [(ACTIONS 3, 1, [anon_sym_SLASH_SLASH]), (ACTIONS 5, 1,
       [anon_sym_SLASH_STAR]), (ACTIONS 7, 1, [anon_sym_SLASH_SLASH_SLASH]), (ACTIONS 9, 1,
       [sym__block_comment]), (ACTIONS 11, 1, [sym__documentation_block_comment]), (ACTIONS 1021,
       1, [anon_sym_RPAREN]), (ACTIONS 5762, 1, [anon_sym_COMMA]), (STATE 2682, 1,
       [aux_sym_record_pattern_repeat1]), (STATE 2686, 2, [sym_comment,
       sym_documentation_comment])]),
     (131506, 9, [(ACTIONS 3, 1, [anon_sym_SLASH_SLASH]), (ACTIONS 5, 1,
       [anon_sym_SLASH_STAR]), (ACTIONS 7, 1, [anon_sym_SLASH_SLASH_SLASH]), (ACTIONS 9, 1,
       [sym__block_comment]), (ACTIONS 11, 1, [sym__documentation_block_comment]), (ACTIONS 5509,
       1, [anon_sym_COMMA]), (ACTIONS 5764, 1, [anon_sym_RPAREN]), (STATE 2776, 1,
       [aux_sym__for_loop_parts_repeat2]), (STATE 2687, 2, [sym_comment,
       sym_documentation_comment])]),
     (131535, 8, [(ACTIONS 3, 1, [anon_sym_SLASH_SLASH]), (ACTIONS 5, 1,
       [anon_sym_SLASH_STAR]), (ACTIONS 7, 1, [anon_sym_SLASH_SLASH_SLASH]), (ACTIONS 9, 1,
       [sym__block_comment]), (ACTIONS 11, 1, [sym__documentation_block_comment]), (ACTIONS 5560,
       1, [anon_sym_COLON]), (ACTIONS 5446, 2, [anon_sym_RBRACE, anon_sym_COMMA]), (STATE 2688,
       2, [sym_comment, sym_documentation_comment])]),
     (131562, 9, [(ACTIONS 3, 1, [anon_sym_SLASH_SLASH]), (ACTIONS 5, 1,
       [anon_sym_SLASH_STAR]), (ACTIONS 7, 1, [anon_sym_SLASH_SLASH_SLASH]), (ACTIONS 9, 1,
       [sym__block_comment]), (ACTIONS 11, 1, [sym__documentation_block_comment]), (ACTIONS 5754,
       1, [anon_sym_COMMA]), (ACTIONS 5766, 1, [anon_sym_GT]), (STATE 2989, 1,
       [aux_sym_type_arguments_repeat1]), (STATE 2689, 2, [sym_comment,
       sym_documentation_comment])]),
     (131591, 8, [(ACTIONS 3, 1, [anon_sym_SLASH_SLASH]), (ACTIONS 5, 1,
       [anon_sym_SLASH_STAR]), (ACTIONS 7, 1, [anon_sym_SLASH_SLASH_SLASH]), (ACTIONS 9, 1,
       [sym__block_comment]), (ACTIONS 11, 1, [sym__documentation_block_comment]), (ACTIONS 5768,
       1, [sym_identifier]), (ACTIONS 4404, 2, [anon_sym_this, anon_sym_super]), (STATE 2690, 2,
       [sym_comment, sym_documentation_comment])])]"

lemma small_run_860: "small_run 2684 131419 ts_small_parse_table_860 2691 131618"
  by (simp add: small_simps ts_small_parse_table_860_def)

definition ts_small_parse_table_861 :: "small_group list" where
  "ts_small_parse_table_861 = [
     (131618, 7, [(ACTIONS 3, 1, [anon_sym_SLASH_SLASH]), (ACTIONS 5, 1,
       [anon_sym_SLASH_STAR]), (ACTIONS 7, 1, [anon_sym_SLASH_SLASH_SLASH]), (ACTIONS 9, 1,
       [sym__block_comment]), (ACTIONS 11, 1, [sym__documentation_block_comment]), (STATE 2691,
       2, [sym_comment, sym_documentation_comment]), (ACTIONS 5772, 3, [anon_sym_default,
       anon_sym_case, sym_identifier])]),
     (131643, 9, [(ACTIONS 3, 1, [anon_sym_SLASH_SLASH]), (ACTIONS 5, 1,
       [anon_sym_SLASH_STAR]), (ACTIONS 7, 1, [anon_sym_SLASH_SLASH_SLASH]), (ACTIONS 9, 1,
       [sym__block_comment]), (ACTIONS 11, 1, [sym__documentation_block_comment]), (ACTIONS 5754,
       1, [anon_sym_COMMA]), (ACTIONS 5774, 1, [anon_sym_GT]), (STATE 2689, 1,
       [aux_sym_type_arguments_repeat1]), (STATE 2692, 2, [sym_comment,
       sym_documentation_comment])]),
     (131672, 9, [(ACTIONS 3, 1, [anon_sym_SLASH_SLASH]), (ACTIONS 5, 1,
       [anon_sym_SLASH_STAR]), (ACTIONS 7, 1, [anon_sym_SLASH_SLASH_SLASH]), (ACTIONS 9, 1,
       [sym__block_comment]), (ACTIONS 11, 1, [sym__documentation_block_comment]), (ACTIONS 474,
       1, [anon_sym_SEMI]), (ACTIONS 5776, 1, [sym_identifier]), (STATE 526, 1,
       [sym__semicolon]), (STATE 2693, 2, [sym_comment, sym_documentation_comment])]),
     (131701, 8, [(ACTIONS 3, 1, [anon_sym_SLASH_SLASH]), (ACTIONS 5, 1,
       [anon_sym_SLASH_STAR]), (ACTIONS 7, 1, [anon_sym_SLASH_SLASH_SLASH]), (ACTIONS 9, 1,
       [sym__block_comment]), (ACTIONS 11, 1, [sym__documentation_block_comment]), (ACTIONS 5778,
       1, [anon_sym_COMMA]), (ACTIONS 5781, 1, [anon_sym_RPAREN]), (STATE 2694, 3, [sym_comment,
       sym_documentation_comment, aux_sym__record_literal_no_const_repeat1])]),
     (131728, 9, [(ACTIONS 3, 1, [anon_sym_SLASH_SLASH]), (ACTIONS 5, 1,
       [anon_sym_SLASH_STAR]), (ACTIONS 7, 1, [anon_sym_SLASH_SLASH_SLASH]), (ACTIONS 9, 1,
       [sym__block_comment]), (ACTIONS 11, 1, [sym__documentation_block_comment]), (ACTIONS 3767,
       1, [anon_sym_RPAREN]), (ACTIONS 5783, 1, [anon_sym_COMMA]), (STATE 2630, 1,
       [aux_sym_parameter_type_list_repeat1]), (STATE 2695, 2, [sym_comment,
       sym_documentation_comment])]),
     (131757, 7, [(ACTIONS 3, 1, [anon_sym_SLASH_SLASH]), (ACTIONS 5, 1,
       [anon_sym_SLASH_STAR]), (ACTIONS 7, 1, [anon_sym_SLASH_SLASH_SLASH]), (ACTIONS 9, 1,
       [sym__block_comment]), (ACTIONS 11, 1, [sym__documentation_block_comment]), (STATE 2696,
       2, [sym_comment, sym_documentation_comment]), (ACTIONS 5785, 3, [anon_sym_RBRACE,
       anon_sym_COMMA, anon_sym_SEMI])]),
     (131782, 9, [(ACTIONS 3, 1, [anon_sym_SLASH_SLASH]), (ACTIONS 5, 1,
       [anon_sym_SLASH_STAR]), (ACTIONS 7, 1, [anon_sym_SLASH_SLASH_SLASH]), (ACTIONS 9, 1,
       [sym__block_comment]), (ACTIONS 11, 1, [sym__documentation_block_comment]), (ACTIONS 5754,
       1, [anon_sym_COMMA]), (ACTIONS 5787, 1, [anon_sym_GT]), (STATE 2989, 1,
       [aux_sym_type_arguments_repeat1]), (STATE 2697, 2, [sym_comment,
       sym_documentation_comment])])]"

lemma small_run_861: "small_run 2691 131618 ts_small_parse_table_861 2698 131811"
  by (simp add: small_simps ts_small_parse_table_861_def)

definition ts_small_parse_table_862 :: "small_group list" where
  "ts_small_parse_table_862 = [
     (131811, 9, [(ACTIONS 3, 1, [anon_sym_SLASH_SLASH]), (ACTIONS 5, 1,
       [anon_sym_SLASH_STAR]), (ACTIONS 7, 1, [anon_sym_SLASH_SLASH_SLASH]), (ACTIONS 9, 1,
       [sym__block_comment]), (ACTIONS 11, 1, [sym__documentation_block_comment]), (ACTIONS 474,
       1, [anon_sym_SEMI]), (ACTIONS 5789, 1, [sym_identifier]), (STATE 544, 1,
       [sym__semicolon]), (STATE 2698, 2, [sym_comment, sym_documentation_comment])]),
     (131840, 9, [(ACTIONS 3, 1, [anon_sym_SLASH_SLASH]), (ACTIONS 5, 1,
       [anon_sym_SLASH_STAR]), (ACTIONS 7, 1, [anon_sym_SLASH_SLASH_SLASH]), (ACTIONS 9, 1,
       [sym__block_comment]), (ACTIONS 11, 1, [sym__documentation_block_comment]), (ACTIONS 3161,
       1, [anon_sym_LT]), (ACTIONS 5791, 1, [anon_sym_DOT]), (STATE 3473, 1,
       [sym_type_arguments]), (STATE 2699, 2, [sym_comment, sym_documentation_comment])]),
     (131869, 9, [(ACTIONS 3, 1, [anon_sym_SLASH_SLASH]), (ACTIONS 5, 1,
       [anon_sym_SLASH_STAR]), (ACTIONS 7, 1, [anon_sym_SLASH_SLASH_SLASH]), (ACTIONS 9, 1,
       [sym__block_comment]), (ACTIONS 11, 1, [sym__documentation_block_comment]), (ACTIONS 5793,
       1, [anon_sym_COMMA]), (ACTIONS 5795, 1, [anon_sym_GT]), (STATE 2761, 1,
       [aux_sym_type_parameters_repeat1]), (STATE 2700, 2, [sym_comment,
       sym_documentation_comment])]),
     (131898, 9, [(ACTIONS 3, 1, [anon_sym_SLASH_SLASH]), (ACTIONS 5, 1,
       [anon_sym_SLASH_STAR]), (ACTIONS 7, 1, [anon_sym_SLASH_SLASH_SLASH]), (ACTIONS 9, 1,
       [sym__block_comment]), (ACTIONS 11, 1, [sym__documentation_block_comment]), (ACTIONS 5797,
       1, [anon_sym_COMMA]), (ACTIONS 5799, 1, [anon_sym_RPAREN]), (STATE 2695, 1,
       [aux_sym_parameter_type_list_repeat1]), (STATE 2701, 2, [sym_comment,
       sym_documentation_comment])]),
     (131927, 9, [(ACTIONS 3, 1, [anon_sym_SLASH_SLASH]), (ACTIONS 5, 1,
       [anon_sym_SLASH_STAR]), (ACTIONS 7, 1, [anon_sym_SLASH_SLASH_SLASH]), (ACTIONS 9, 1,
       [sym__block_comment]), (ACTIONS 11, 1, [sym__documentation_block_comment]), (ACTIONS 5754,
       1, [anon_sym_COMMA]), (ACTIONS 5801, 1, [anon_sym_GT]), (STATE 2697, 1,
       [aux_sym_type_arguments_repeat1]), (STATE 2702, 2, [sym_comment,
       sym_documentation_comment])]),
     (131956, 7, [(ACTIONS 3, 1, [anon_sym_SLASH_SLASH]), (ACTIONS 5, 1,
       [anon_sym_SLASH_STAR]), (ACTIONS 7, 1, [anon_sym_SLASH_SLASH_SLASH]), (ACTIONS 9, 1,
       [sym__block_comment]), (ACTIONS 11, 1, [sym__documentation_block_comment]), (STATE 2703,
       2, [sym_comment, sym_documentation_comment]), (ACTIONS 5803, 3, [anon_sym_RBRACE,
       anon_sym_COMMA, anon_sym_SEMI])]),
     (131981, 9, [(ACTIONS 3, 1, [anon_sym_SLASH_SLASH]), (ACTIONS 5, 1,
       [anon_sym_SLASH_STAR]), (ACTIONS 7, 1, [anon_sym_SLASH_SLASH_SLASH]), (ACTIONS 9, 1,
       [sym__block_comment]), (ACTIONS 11, 1, [sym__documentation_block_comment]), (ACTIONS 5805,
       1, [sym_identifier]), (STATE 2991, 1, [sym_initialized_identifier]), (STATE 3073, 1,
       [sym_initialized_identifier_list]), (STATE 2704, 2, [sym_comment,
       sym_documentation_comment])])]"

lemma small_run_862: "small_run 2698 131811 ts_small_parse_table_862 2705 132010"
  by (simp add: small_simps ts_small_parse_table_862_def)

definition ts_small_parse_table_863 :: "small_group list" where
  "ts_small_parse_table_863 = [
     (132010, 9, [(ACTIONS 3, 1, [anon_sym_SLASH_SLASH]), (ACTIONS 5, 1,
       [anon_sym_SLASH_STAR]), (ACTIONS 7, 1, [anon_sym_SLASH_SLASH_SLASH]), (ACTIONS 9, 1,
       [sym__block_comment]), (ACTIONS 11, 1, [sym__documentation_block_comment]), (ACTIONS 5793,
       1, [anon_sym_COMMA]), (ACTIONS 5807, 1, [anon_sym_GT]), (STATE 2700, 1,
       [aux_sym_type_parameters_repeat1]), (STATE 2705, 2, [sym_comment,
       sym_documentation_comment])]),
     (132039, 9, [(ACTIONS 3, 1, [anon_sym_SLASH_SLASH]), (ACTIONS 5, 1,
       [anon_sym_SLASH_STAR]), (ACTIONS 7, 1, [anon_sym_SLASH_SLASH_SLASH]), (ACTIONS 9, 1,
       [sym__block_comment]), (ACTIONS 11, 1, [sym__documentation_block_comment]), (ACTIONS 4212,
       1, [anon_sym_RPAREN]), (ACTIONS 5809, 1, [anon_sym_COMMA]), (STATE 2922, 1,
       [aux_sym_record_type_repeat1]), (STATE 2706, 2, [sym_comment,
       sym_documentation_comment])]),
     (132068, 8, [(ACTIONS 3, 1, [anon_sym_SLASH_SLASH]), (ACTIONS 5, 1,
       [anon_sym_SLASH_STAR]), (ACTIONS 7, 1, [anon_sym_SLASH_SLASH_SLASH]), (ACTIONS 9, 1,
       [sym__block_comment]), (ACTIONS 11, 1, [sym__documentation_block_comment]), (ACTIONS 5811,
       1, [anon_sym_COMMA]), (ACTIONS 5814, 1, [anon_sym_SEMI]), (STATE 2707, 3, [sym_comment,
       sym_documentation_comment, aux_sym_initialized_identifier_list_repeat1])]),
     (132095, 9, [(ACTIONS 3, 1, [anon_sym_SLASH_SLASH]), (ACTIONS 5, 1,
       [anon_sym_SLASH_STAR]), (ACTIONS 7, 1, [anon_sym_SLASH_SLASH_SLASH]), (ACTIONS 9, 1,
       [sym__block_comment]), (ACTIONS 11, 1, [sym__documentation_block_comment]), (ACTIONS 5816,
       1, [anon_sym_COMMA]), (ACTIONS 5818, 1, [anon_sym_RPAREN]), (STATE 2706, 1,
       [aux_sym_record_type_repeat1]), (STATE 2708, 2, [sym_comment,
       sym_documentation_comment])]),
     (132124, 9, [(ACTIONS 3, 1, [anon_sym_SLASH_SLASH]), (ACTIONS 5, 1,
       [anon_sym_SLASH_STAR]), (ACTIONS 7, 1, [anon_sym_SLASH_SLASH_SLASH]), (ACTIONS 9, 1,
       [sym__block_comment]), (ACTIONS 11, 1, [sym__documentation_block_comment]), (ACTIONS 5754,
       1, [anon_sym_COMMA]), (ACTIONS 5820, 1, [anon_sym_GT]), (STATE 2989, 1,
       [aux_sym_type_arguments_repeat1]), (STATE 2709, 2, [sym_comment,
       sym_documentation_comment])]),
     (132153, 9, [(ACTIONS 3, 1, [anon_sym_SLASH_SLASH]), (ACTIONS 5, 1,
       [anon_sym_SLASH_STAR]), (ACTIONS 7, 1, [anon_sym_SLASH_SLASH_SLASH]), (ACTIONS 9, 1,
       [sym__block_comment]), (ACTIONS 11, 1, [sym__documentation_block_comment]), (ACTIONS 5822,
       1, [sym_identifier]), (STATE 3021, 1, [sym_dotted_identifier_list]), (STATE 3571, 1,
       [sym_uri_test]), (STATE 2710, 2, [sym_comment, sym_documentation_comment])]),
     (132182, 8, [(ACTIONS 3, 1, [anon_sym_SLASH_SLASH]), (ACTIONS 5, 1,
       [anon_sym_SLASH_STAR]), (ACTIONS 7, 1, [anon_sym_SLASH_SLASH_SLASH]), (ACTIONS 9, 1,
       [sym__block_comment]), (ACTIONS 11, 1, [sym__documentation_block_comment]), (ACTIONS 5824,
       1, [anon_sym_COMMA]), (ACTIONS 5827, 1, [anon_sym_SEMI]), (STATE 2711, 3, [sym_comment,
       sym_documentation_comment, aux_sym__for_loop_parts_repeat1])])]"

lemma small_run_863: "small_run 2705 132010 ts_small_parse_table_863 2712 132209"
  by (simp add: small_simps ts_small_parse_table_863_def)

definition ts_small_parse_table_864 :: "small_group list" where
  "ts_small_parse_table_864 = [
     (132209, 7, [(ACTIONS 3, 1, [anon_sym_SLASH_SLASH]), (ACTIONS 5, 1,
       [anon_sym_SLASH_STAR]), (ACTIONS 7, 1, [anon_sym_SLASH_SLASH_SLASH]), (ACTIONS 9, 1,
       [sym__block_comment]), (ACTIONS 11, 1, [sym__documentation_block_comment]), (STATE 2712,
       2, [sym_comment, sym_documentation_comment]), (ACTIONS 5829, 3, [anon_sym_SEMI,
       anon_sym_show, anon_sym_hide])]),
     (132234, 9, [(ACTIONS 3, 1, [anon_sym_SLASH_SLASH]), (ACTIONS 5, 1,
       [anon_sym_SLASH_STAR]), (ACTIONS 7, 1, [anon_sym_SLASH_SLASH_SLASH]), (ACTIONS 9, 1,
       [sym__block_comment]), (ACTIONS 11, 1, [sym__documentation_block_comment]), (ACTIONS 5831,
       1, [sym_identifier]), (STATE 2916, 1, [sym_static_final_declaration]), (STATE 3073, 1,
       [sym_static_final_declaration_list]), (STATE 2713, 2, [sym_comment,
       sym_documentation_comment])]),
     (132263, 9, [(ACTIONS 3, 1, [anon_sym_SLASH_SLASH]), (ACTIONS 5, 1,
       [anon_sym_SLASH_STAR]), (ACTIONS 7, 1, [anon_sym_SLASH_SLASH_SLASH]), (ACTIONS 9, 1,
       [sym__block_comment]), (ACTIONS 11, 1, [sym__documentation_block_comment]), (ACTIONS 4797,
       1, [anon_sym_COMMA]), (ACTIONS 5833, 1, [anon_sym_SEMI]), (STATE 2575, 1,
       [aux_sym_inferred_parameters_repeat1]), (STATE 2714, 2, [sym_comment,
       sym_documentation_comment])]),
     (132292, 9, [(ACTIONS 3, 1, [anon_sym_SLASH_SLASH]), (ACTIONS 5, 1,
       [anon_sym_SLASH_STAR]), (ACTIONS 7, 1, [anon_sym_SLASH_SLASH_SLASH]), (ACTIONS 9, 1,
       [sym__block_comment]), (ACTIONS 11, 1, [sym__documentation_block_comment]), (ACTIONS 3765,
       1, [anon_sym_RPAREN]), (ACTIONS 5835, 1, [anon_sym_COMMA]), (STATE 2630, 1,
       [aux_sym_parameter_type_list_repeat1]), (STATE 2715, 2, [sym_comment,
       sym_documentation_comment])]),
     (132321, 9, [(ACTIONS 3, 1, [anon_sym_SLASH_SLASH]), (ACTIONS 5, 1,
       [anon_sym_SLASH_STAR]), (ACTIONS 7, 1, [anon_sym_SLASH_SLASH_SLASH]), (ACTIONS 9, 1,
       [sym__block_comment]), (ACTIONS 11, 1, [sym__documentation_block_comment]), (ACTIONS 4797,
       1, [anon_sym_COMMA]), (ACTIONS 4799, 1, [anon_sym_SEMI]), (STATE 2714, 1,
       [aux_sym_inferred_parameters_repeat1]), (STATE 2716, 2, [sym_comment,
       sym_documentation_comment])]),
     (132350, 9, [(ACTIONS 3, 1, [anon_sym_SLASH_SLASH]), (ACTIONS 5, 1,
       [anon_sym_SLASH_STAR]), (ACTIONS 7, 1, [anon_sym_SLASH_SLASH_SLASH]), (ACTIONS 9, 1,
       [sym__block_comment]), (ACTIONS 11, 1, [sym__documentation_block_comment]), (ACTIONS 3511,
       1, [anon_sym_LT]), (ACTIONS 5837, 1, [anon_sym_on]), (STATE 3511, 1,
       [sym_type_parameters]), (STATE 2717, 2, [sym_comment, sym_documentation_comment])]),
     (132379, 9, [(ACTIONS 3, 1, [anon_sym_SLASH_SLASH]), (ACTIONS 5, 1,
       [anon_sym_SLASH_STAR]), (ACTIONS 7, 1, [anon_sym_SLASH_SLASH_SLASH]), (ACTIONS 9, 1,
       [sym__block_comment]), (ACTIONS 11, 1, [sym__documentation_block_comment]), (ACTIONS 4222,
       1, [anon_sym_RBRACE]), (ACTIONS 5839, 1, [anon_sym_COMMA]), (STATE 2724, 1,
       [aux_sym_record_type_repeat2]), (STATE 2718, 2, [sym_comment,
       sym_documentation_comment])])]"

lemma small_run_864: "small_run 2712 132209 ts_small_parse_table_864 2719 132408"
  by (simp add: small_simps ts_small_parse_table_864_def)

definition ts_small_parse_table_865 :: "small_group list" where
  "ts_small_parse_table_865 = [
     (132408, 9, [(ACTIONS 3, 1, [anon_sym_SLASH_SLASH]), (ACTIONS 5, 1,
       [anon_sym_SLASH_STAR]), (ACTIONS 7, 1, [anon_sym_SLASH_SLASH_SLASH]), (ACTIONS 9, 1,
       [sym__block_comment]), (ACTIONS 11, 1, [sym__documentation_block_comment]), (ACTIONS 5841,
       1, [anon_sym_RBRACE]), (ACTIONS 5843, 1, [anon_sym_COMMA]), (STATE 3002, 1,
       [aux_sym_named_parameter_types_repeat1]), (STATE 2719, 2, [sym_comment,
       sym_documentation_comment])]),
     (132437, 9, [(ACTIONS 3, 1, [anon_sym_SLASH_SLASH]), (ACTIONS 5, 1,
       [anon_sym_SLASH_STAR]), (ACTIONS 7, 1, [anon_sym_SLASH_SLASH_SLASH]), (ACTIONS 9, 1,
       [sym__block_comment]), (ACTIONS 11, 1, [sym__documentation_block_comment]), (ACTIONS 4278,
       1, [anon_sym_LPAREN]), (STATE 2016, 1, [sym__strict_formal_parameter_list]), (STATE 2921,
       1, [sym_formal_parameter_list]), (STATE 2720, 2, [sym_comment,
       sym_documentation_comment])]),
     (132466, 9, [(ACTIONS 3, 1, [anon_sym_SLASH_SLASH]), (ACTIONS 5, 1,
       [anon_sym_SLASH_STAR]), (ACTIONS 7, 1, [anon_sym_SLASH_SLASH_SLASH]), (ACTIONS 9, 1,
       [sym__block_comment]), (ACTIONS 11, 1, [sym__documentation_block_comment]), (ACTIONS 5754,
       1, [anon_sym_COMMA]), (ACTIONS 5845, 1, [anon_sym_GT]), (STATE 2989, 1,
       [aux_sym_type_arguments_repeat1]), (STATE 2721, 2, [sym_comment,
       sym_documentation_comment])]),
     (132495, 9, [(ACTIONS 3, 1, [anon_sym_SLASH_SLASH]), (ACTIONS 5, 1,
       [anon_sym_SLASH_STAR]), (ACTIONS 7, 1, [anon_sym_SLASH_SLASH_SLASH]), (ACTIONS 9, 1,
       [sym__block_comment]), (ACTIONS 11, 1, [sym__documentation_block_comment]), (ACTIONS 5847,
       1, [anon_sym_COMMA]), (ACTIONS 5849, 1, [anon_sym_RBRACK]), (STATE 3004, 1,
       [aux_sym_parameter_type_list_repeat1]), (STATE 2722, 2, [sym_comment,
       sym_documentation_comment])]),
     (132524, 9, [(ACTIONS 3, 1, [anon_sym_SLASH_SLASH]), (ACTIONS 5, 1,
       [anon_sym_SLASH_STAR]), (ACTIONS 7, 1, [anon_sym_SLASH_SLASH_SLASH]), (ACTIONS 9, 1,
       [sym__block_comment]), (ACTIONS 11, 1, [sym__documentation_block_comment]), (ACTIONS 5754,
       1, [anon_sym_COMMA]), (ACTIONS 5851, 1, [anon_sym_GT]), (STATE 2709, 1,
       [aux_sym_type_arguments_repeat1]), (STATE 2723, 2, [sym_comment,
       sym_documentation_comment])]),
     (132553, 9, [(ACTIONS 3, 1, [anon_sym_SLASH_SLASH]), (ACTIONS 5, 1,
       [anon_sym_SLASH_STAR]), (ACTIONS 7, 1, [anon_sym_SLASH_SLASH_SLASH]), (ACTIONS 9, 1,
       [sym__block_comment]), (ACTIONS 11, 1, [sym__documentation_block_comment]), (ACTIONS 4232,
       1, [anon_sym_RBRACE]), (ACTIONS 5853, 1, [anon_sym_COMMA]), (STATE 2734, 1,
       [aux_sym_record_type_repeat2]), (STATE 2724, 2, [sym_comment,
       sym_documentation_comment])]),
     (132582, 9, [(ACTIONS 3, 1, [anon_sym_SLASH_SLASH]), (ACTIONS 5, 1,
       [anon_sym_SLASH_STAR]), (ACTIONS 7, 1, [anon_sym_SLASH_SLASH_SLASH]), (ACTIONS 9, 1,
       [sym__block_comment]), (ACTIONS 11, 1, [sym__documentation_block_comment]), (ACTIONS 4232,
       1, [anon_sym_RBRACE]), (ACTIONS 5853, 1, [anon_sym_COMMA]), (STATE 2739, 1,
       [aux_sym_record_type_repeat2]), (STATE 2725, 2, [sym_comment,
       sym_documentation_comment])])]"

lemma small_run_865: "small_run 2719 132408 ts_small_parse_table_865 2726 132611"
  by (simp add: small_simps ts_small_parse_table_865_def)

definition ts_small_parse_table_866 :: "small_group list" where
  "ts_small_parse_table_866 = [
     (132611, 9, [(ACTIONS 3, 1, [anon_sym_SLASH_SLASH]), (ACTIONS 5, 1,
       [anon_sym_SLASH_STAR]), (ACTIONS 7, 1, [anon_sym_SLASH_SLASH_SLASH]), (ACTIONS 9, 1,
       [sym__block_comment]), (ACTIONS 11, 1, [sym__documentation_block_comment]), (ACTIONS 5147,
       1, [anon_sym_SEMI]), (ACTIONS 5855, 1, [anon_sym_COMMA]), (STATE 2939, 1,
       [aux_sym_initializers_repeat1]), (STATE 2726, 2, [sym_comment,
       sym_documentation_comment])]),
     (132640, 7, [(ACTIONS 3, 1, [anon_sym_SLASH_SLASH]), (ACTIONS 5, 1,
       [anon_sym_SLASH_STAR]), (ACTIONS 7, 1, [anon_sym_SLASH_SLASH_SLASH]), (ACTIONS 9, 1,
       [sym__block_comment]), (ACTIONS 11, 1, [sym__documentation_block_comment]), (STATE 2727,
       2, [sym_comment, sym_documentation_comment]), (ACTIONS 5694, 3, [anon_sym_COMMA,
       anon_sym_RBRACK, anon_sym_RPAREN])]),
     (132665, 9, [(ACTIONS 3, 1, [anon_sym_SLASH_SLASH]), (ACTIONS 5, 1,
       [anon_sym_SLASH_STAR]), (ACTIONS 7, 1, [anon_sym_SLASH_SLASH_SLASH]), (ACTIONS 9, 1,
       [sym__block_comment]), (ACTIONS 11, 1, [sym__documentation_block_comment]), (ACTIONS 3755,
       1, [anon_sym_RPAREN]), (ACTIONS 5857, 1, [anon_sym_COMMA]), (STATE 2630, 1,
       [aux_sym_parameter_type_list_repeat1]), (STATE 2728, 2, [sym_comment,
       sym_documentation_comment])]),
     (132694, 9, [(ACTIONS 3, 1, [anon_sym_SLASH_SLASH]), (ACTIONS 5, 1,
       [anon_sym_SLASH_STAR]), (ACTIONS 7, 1, [anon_sym_SLASH_SLASH_SLASH]), (ACTIONS 9, 1,
       [sym__block_comment]), (ACTIONS 11, 1, [sym__documentation_block_comment]), (ACTIONS 5793,
       1, [anon_sym_COMMA]), (ACTIONS 5859, 1, [anon_sym_GT]), (STATE 2761, 1,
       [aux_sym_type_parameters_repeat1]), (STATE 2729, 2, [sym_comment,
       sym_documentation_comment])]),
     (132723, 9, [(ACTIONS 3, 1, [anon_sym_SLASH_SLASH]), (ACTIONS 5, 1,
       [anon_sym_SLASH_STAR]), (ACTIONS 7, 1, [anon_sym_SLASH_SLASH_SLASH]), (ACTIONS 9, 1,
       [sym__block_comment]), (ACTIONS 11, 1, [sym__documentation_block_comment]), (ACTIONS 5861,
       1, [anon_sym_COMMA]), (ACTIONS 5863, 1, [anon_sym_RPAREN]), (STATE 2715, 1,
       [aux_sym_parameter_type_list_repeat1]), (STATE 2730, 2, [sym_comment,
       sym_documentation_comment])]),
     (132752, 9, [(ACTIONS 3, 1, [anon_sym_SLASH_SLASH]), (ACTIONS 5, 1,
       [anon_sym_SLASH_STAR]), (ACTIONS 7, 1, [anon_sym_SLASH_SLASH_SLASH]), (ACTIONS 9, 1,
       [sym__block_comment]), (ACTIONS 11, 1, [sym__documentation_block_comment]), (ACTIONS 4278,
       1, [anon_sym_LPAREN]), (STATE 2016, 1, [sym__strict_formal_parameter_list]), (STATE 2940,
       1, [sym_formal_parameter_list]), (STATE 2731, 2, [sym_comment,
       sym_documentation_comment])]),
     (132781, 9, [(ACTIONS 3, 1, [anon_sym_SLASH_SLASH]), (ACTIONS 5, 1,
       [anon_sym_SLASH_STAR]), (ACTIONS 7, 1, [anon_sym_SLASH_SLASH_SLASH]), (ACTIONS 9, 1,
       [sym__block_comment]), (ACTIONS 11, 1, [sym__documentation_block_comment]), (ACTIONS 5754,
       1, [anon_sym_COMMA]), (ACTIONS 5865, 1, [anon_sym_GT]), (STATE 2721, 1,
       [aux_sym_type_arguments_repeat1]), (STATE 2732, 2, [sym_comment,
       sym_documentation_comment])])]"

lemma small_run_866: "small_run 2726 132611 ts_small_parse_table_866 2733 132810"
  by (simp add: small_simps ts_small_parse_table_866_def)

definition ts_small_parse_table_867 :: "small_group list" where
  "ts_small_parse_table_867 = [
     (132810, 7, [(ACTIONS 3, 1, [anon_sym_SLASH_SLASH]), (ACTIONS 5, 1,
       [anon_sym_SLASH_STAR]), (ACTIONS 7, 1, [anon_sym_SLASH_SLASH_SLASH]), (ACTIONS 9, 1,
       [sym__block_comment]), (ACTIONS 11, 1, [sym__documentation_block_comment]), (STATE 2733,
       2, [sym_comment, sym_documentation_comment]), (ACTIONS 5867, 3, [anon_sym_SEMI,
       anon_sym_show, anon_sym_hide])]),
     (132835, 8, [(ACTIONS 3, 1, [anon_sym_SLASH_SLASH]), (ACTIONS 5, 1,
       [anon_sym_SLASH_STAR]), (ACTIONS 7, 1, [anon_sym_SLASH_SLASH_SLASH]), (ACTIONS 9, 1,
       [sym__block_comment]), (ACTIONS 11, 1, [sym__documentation_block_comment]), (ACTIONS 5869,
       1, [anon_sym_RBRACE]), (ACTIONS 5871, 1, [anon_sym_COMMA]), (STATE 2734, 3, [sym_comment,
       sym_documentation_comment, aux_sym_record_type_repeat2])]),
     (132862, 9, [(ACTIONS 3, 1, [anon_sym_SLASH_SLASH]), (ACTIONS 5, 1,
       [anon_sym_SLASH_STAR]), (ACTIONS 7, 1, [anon_sym_SLASH_SLASH_SLASH]), (ACTIONS 9, 1,
       [sym__block_comment]), (ACTIONS 11, 1, [sym__documentation_block_comment]), (ACTIONS 4148,
       1, [anon_sym_RBRACE]), (ACTIONS 5874, 1, [anon_sym_COMMA]), (STATE 2969, 1,
       [aux_sym_record_type_repeat2]), (STATE 2735, 2, [sym_comment,
       sym_documentation_comment])]),
     (132891, 9, [(ACTIONS 3, 1, [anon_sym_SLASH_SLASH]), (ACTIONS 5, 1,
       [anon_sym_SLASH_STAR]), (ACTIONS 7, 1, [anon_sym_SLASH_SLASH_SLASH]), (ACTIONS 9, 1,
       [sym__block_comment]), (ACTIONS 11, 1, [sym__documentation_block_comment]), (ACTIONS 642,
       1, [anon_sym_RPAREN]), (ACTIONS 5876, 1, [anon_sym_COMMA]), (STATE 2983, 1,
       [aux_sym__argument_list_repeat1]), (STATE 2736, 2, [sym_comment,
       sym_documentation_comment])]),
     (132920, 9, [(ACTIONS 3, 1, [anon_sym_SLASH_SLASH]), (ACTIONS 5, 1,
       [anon_sym_SLASH_STAR]), (ACTIONS 7, 1, [anon_sym_SLASH_SLASH_SLASH]), (ACTIONS 9, 1,
       [sym__block_comment]), (ACTIONS 11, 1, [sym__documentation_block_comment]), (ACTIONS 5805,
       1, [sym_identifier]), (STATE 2991, 1, [sym_initialized_identifier]), (STATE 3104, 1,
       [sym_initialized_identifier_list]), (STATE 2737, 2, [sym_comment,
       sym_documentation_comment])]),
     (132949, 9, [(ACTIONS 3, 1, [anon_sym_SLASH_SLASH]), (ACTIONS 5, 1,
       [anon_sym_SLASH_STAR]), (ACTIONS 7, 1, [anon_sym_SLASH_SLASH_SLASH]), (ACTIONS 9, 1,
       [sym__block_comment]), (ACTIONS 11, 1, [sym__documentation_block_comment]), (ACTIONS 5793,
       1, [anon_sym_COMMA]), (ACTIONS 5878, 1, [anon_sym_GT]), (STATE 2729, 1,
       [aux_sym_type_parameters_repeat1]), (STATE 2738, 2, [sym_comment,
       sym_documentation_comment])]),
     (132978, 9, [(ACTIONS 3, 1, [anon_sym_SLASH_SLASH]), (ACTIONS 5, 1,
       [anon_sym_SLASH_STAR]), (ACTIONS 7, 1, [anon_sym_SLASH_SLASH_SLASH]), (ACTIONS 9, 1,
       [sym__block_comment]), (ACTIONS 11, 1, [sym__documentation_block_comment]), (ACTIONS 4234,
       1, [anon_sym_RBRACE]), (ACTIONS 5880, 1, [anon_sym_COMMA]), (STATE 2734, 1,
       [aux_sym_record_type_repeat2]), (STATE 2739, 2, [sym_comment,
       sym_documentation_comment])])]"

lemma small_run_867: "small_run 2733 132810 ts_small_parse_table_867 2740 133007"
  by (simp add: small_simps ts_small_parse_table_867_def)

definition ts_small_parse_table_868 :: "small_group list" where
  "ts_small_parse_table_868 = [
     (133007, 9, [(ACTIONS 3, 1, [anon_sym_SLASH_SLASH]), (ACTIONS 5, 1,
       [anon_sym_SLASH_STAR]), (ACTIONS 7, 1, [anon_sym_SLASH_SLASH_SLASH]), (ACTIONS 9, 1,
       [sym__block_comment]), (ACTIONS 11, 1, [sym__documentation_block_comment]), (ACTIONS 614,
       1, [anon_sym_RBRACE]), (ACTIONS 5882, 1, [anon_sym_COMMA]), (STATE 2605, 1,
       [aux_sym_list_literal_repeat1]), (STATE 2740, 2, [sym_comment,
       sym_documentation_comment])]),
     (133036, 9, [(ACTIONS 3, 1, [anon_sym_SLASH_SLASH]), (ACTIONS 5, 1,
       [anon_sym_SLASH_STAR]), (ACTIONS 7, 1, [anon_sym_SLASH_SLASH_SLASH]), (ACTIONS 9, 1,
       [sym__block_comment]), (ACTIONS 11, 1, [sym__documentation_block_comment]), (ACTIONS 155,
       1, [anon_sym_new]), (ACTIONS 5884, 1, [sym_identifier]), (STATE 3033, 1,
       [sym__new_builtin]), (STATE 2741, 2, [sym_comment, sym_documentation_comment])]),
     (133065, 7, [(ACTIONS 3, 1, [anon_sym_SLASH_SLASH]), (ACTIONS 5, 1,
       [anon_sym_SLASH_STAR]), (ACTIONS 7, 1, [anon_sym_SLASH_SLASH_SLASH]), (ACTIONS 9, 1,
       [sym__block_comment]), (ACTIONS 11, 1, [sym__documentation_block_comment]), (STATE 2742,
       2, [sym_comment, sym_documentation_comment]), (ACTIONS 5886, 3, [anon_sym_RBRACE,
       anon_sym_COMMA, anon_sym_SEMI])]),
     (133090, 9, [(ACTIONS 3, 1, [anon_sym_SLASH_SLASH]), (ACTIONS 5, 1,
       [anon_sym_SLASH_STAR]), (ACTIONS 7, 1, [anon_sym_SLASH_SLASH_SLASH]), (ACTIONS 9, 1,
       [sym__block_comment]), (ACTIONS 11, 1, [sym__documentation_block_comment]), (ACTIONS 3398,
       1, [anon_sym_LPAREN]), (ACTIONS 5888, 1, [anon_sym_DOT]), (STATE 943, 1, [sym_arguments]),
       (STATE 2743, 2, [sym_comment, sym_documentation_comment])]),
     (133119, 9, [(ACTIONS 3, 1, [anon_sym_SLASH_SLASH]), (ACTIONS 5, 1,
       [anon_sym_SLASH_STAR]), (ACTIONS 7, 1, [anon_sym_SLASH_SLASH_SLASH]), (ACTIONS 9, 1,
       [sym__block_comment]), (ACTIONS 11, 1, [sym__documentation_block_comment]), (ACTIONS 155,
       1, [anon_sym_new]), (ACTIONS 5890, 1, [sym_identifier]), (STATE 3066, 1,
       [sym__new_builtin]), (STATE 2744, 2, [sym_comment, sym_documentation_comment])]),
     (133148, 9, [(ACTIONS 3, 1, [anon_sym_SLASH_SLASH]), (ACTIONS 5, 1,
       [anon_sym_SLASH_STAR]), (ACTIONS 7, 1, [anon_sym_SLASH_SLASH_SLASH]), (ACTIONS 9, 1,
       [sym__block_comment]), (ACTIONS 11, 1, [sym__documentation_block_comment]), (ACTIONS 1009,
       1, [anon_sym_RPAREN]), (ACTIONS 5892, 1, [anon_sym_COMMA]), (STATE 2682, 1,
       [aux_sym_record_pattern_repeat1]), (STATE 2745, 2, [sym_comment,
       sym_documentation_comment])]),
     (133177, 9, [(ACTIONS 3, 1, [anon_sym_SLASH_SLASH]), (ACTIONS 5, 1,
       [anon_sym_SLASH_STAR]), (ACTIONS 7, 1, [anon_sym_SLASH_SLASH_SLASH]), (ACTIONS 9, 1,
       [sym__block_comment]), (ACTIONS 11, 1, [sym__documentation_block_comment]), (ACTIONS 558,
       1, [anon_sym_RBRACK]), (ACTIONS 5894, 1, [anon_sym_COMMA]), (STATE 2605, 1,
       [aux_sym_list_literal_repeat1]), (STATE 2746, 2, [sym_comment,
       sym_documentation_comment])])]"

lemma small_run_868: "small_run 2740 133007 ts_small_parse_table_868 2747 133206"
  by (simp add: small_simps ts_small_parse_table_868_def)

definition ts_small_parse_table_869 :: "small_group list" where
  "ts_small_parse_table_869 = [
     (133206, 9, [(ACTIONS 3, 1, [anon_sym_SLASH_SLASH]), (ACTIONS 5, 1,
       [anon_sym_SLASH_STAR]), (ACTIONS 7, 1, [anon_sym_SLASH_SLASH_SLASH]), (ACTIONS 9, 1,
       [sym__block_comment]), (ACTIONS 11, 1, [sym__documentation_block_comment]), (ACTIONS 612,
       1, [anon_sym_RBRACE]), (ACTIONS 5896, 1, [anon_sym_COMMA]), (STATE 2605, 1,
       [aux_sym_list_literal_repeat1]), (STATE 2747, 2, [sym_comment,
       sym_documentation_comment])]),
     (133235, 9, [(ACTIONS 3, 1, [anon_sym_SLASH_SLASH]), (ACTIONS 5, 1,
       [anon_sym_SLASH_STAR]), (ACTIONS 7, 1, [anon_sym_SLASH_SLASH_SLASH]), (ACTIONS 9, 1,
       [sym__block_comment]), (ACTIONS 11, 1, [sym__documentation_block_comment]), (ACTIONS 612,
       1, [anon_sym_RBRACK]), (ACTIONS 5898, 1, [anon_sym_COMMA]), (STATE 2605, 1,
       [aux_sym_list_literal_repeat1]), (STATE 2748, 2, [sym_comment,
       sym_documentation_comment])]),
     (133264, 9, [(ACTIONS 3, 1, [anon_sym_SLASH_SLASH]), (ACTIONS 5, 1,
       [anon_sym_SLASH_STAR]), (ACTIONS 7, 1, [anon_sym_SLASH_SLASH_SLASH]), (ACTIONS 9, 1,
       [sym__block_comment]), (ACTIONS 11, 1, [sym__documentation_block_comment]), (ACTIONS 612,
       1, [anon_sym_RBRACE]), (ACTIONS 5896, 1, [anon_sym_COMMA]), (STATE 2854, 1,
       [aux_sym_list_literal_repeat1]), (STATE 2749, 2, [sym_comment,
       sym_documentation_comment])]),
     (133293, 9, [(ACTIONS 3, 1, [anon_sym_SLASH_SLASH]), (ACTIONS 5, 1,
       [anon_sym_SLASH_STAR]), (ACTIONS 7, 1, [anon_sym_SLASH_SLASH_SLASH]), (ACTIONS 9, 1,
       [sym__block_comment]), (ACTIONS 11, 1, [sym__documentation_block_comment]), (ACTIONS 5900,
       1, [anon_sym_COMMA]), (ACTIONS 5903, 1, [anon_sym_RPAREN]), (STATE 2963, 1,
       [aux_sym__normal_formal_parameters_repeat1]), (STATE 2750, 2, [sym_comment,
       sym_documentation_comment])]),
     (133322, 9, [(ACTIONS 3, 1, [anon_sym_SLASH_SLASH]), (ACTIONS 5, 1,
       [anon_sym_SLASH_STAR]), (ACTIONS 7, 1, [anon_sym_SLASH_SLASH_SLASH]), (ACTIONS 9, 1,
       [sym__block_comment]), (ACTIONS 11, 1, [sym__documentation_block_comment]), (ACTIONS 4272,
       1, [anon_sym_RPAREN]), (ACTIONS 5905, 1, [anon_sym_COMMA]), (STATE 2922, 1,
       [aux_sym_record_type_repeat1]), (STATE 2751, 2, [sym_comment,
       sym_documentation_comment])]),
     (133351, 9, [(ACTIONS 3, 1, [anon_sym_SLASH_SLASH]), (ACTIONS 5, 1,
       [anon_sym_SLASH_STAR]), (ACTIONS 7, 1, [anon_sym_SLASH_SLASH_SLASH]), (ACTIONS 9, 1,
       [sym__block_comment]), (ACTIONS 11, 1, [sym__documentation_block_comment]), (ACTIONS 612,
       1, [anon_sym_RBRACK]), (ACTIONS 5898, 1, [anon_sym_COMMA]), (STATE 2855, 1,
       [aux_sym_list_literal_repeat1]), (STATE 2752, 2, [sym_comment,
       sym_documentation_comment])]),
     (133380, 8, [(ACTIONS 3, 1, [anon_sym_SLASH_SLASH]), (ACTIONS 5, 1,
       [anon_sym_SLASH_STAR]), (ACTIONS 7, 1, [anon_sym_SLASH_SLASH_SLASH]), (ACTIONS 9, 1,
       [sym__block_comment]), (ACTIONS 11, 1, [sym__documentation_block_comment]), (ACTIONS 5907,
       1, [anon_sym_COMMA]), (ACTIONS 5910, 1, [anon_sym_RBRACK]), (STATE 2753, 3, [sym_comment,
       sym_documentation_comment, aux_sym_list_pattern_repeat1])])]"

lemma small_run_869: "small_run 2747 133206 ts_small_parse_table_869 2754 133407"
  by (simp add: small_simps ts_small_parse_table_869_def)

definition ts_small_parse_table_870 :: "small_group list" where
  "ts_small_parse_table_870 = [
     (133407, 9, [(ACTIONS 3, 1, [anon_sym_SLASH_SLASH]), (ACTIONS 5, 1,
       [anon_sym_SLASH_STAR]), (ACTIONS 7, 1, [anon_sym_SLASH_SLASH_SLASH]), (ACTIONS 9, 1,
       [sym__block_comment]), (ACTIONS 11, 1, [sym__documentation_block_comment]), (ACTIONS 5912,
       1, [anon_sym_COMMA]), (ACTIONS 5914, 1, [anon_sym_RPAREN]), (STATE 2886, 1,
       [aux_sym_record_pattern_repeat1]), (STATE 2754, 2, [sym_comment,
       sym_documentation_comment])]),
     (133436, 7, [(ACTIONS 3, 1, [anon_sym_SLASH_SLASH]), (ACTIONS 5, 1,
       [anon_sym_SLASH_STAR]), (ACTIONS 7, 1, [anon_sym_SLASH_SLASH_SLASH]), (ACTIONS 9, 1,
       [sym__block_comment]), (ACTIONS 11, 1, [sym__documentation_block_comment]), (STATE 2755,
       2, [sym_comment, sym_documentation_comment]), (ACTIONS 4130, 3, [anon_sym_this,
       anon_sym_super, sym_identifier])]),
     (133461, 8, [(ACTIONS 3, 1, [anon_sym_SLASH_SLASH]), (ACTIONS 5, 1,
       [anon_sym_SLASH_STAR]), (ACTIONS 7, 1, [anon_sym_SLASH_SLASH_SLASH]), (ACTIONS 9, 1,
       [sym__block_comment]), (ACTIONS 11, 1, [sym__documentation_block_comment]), (ACTIONS 5916,
       1, [sym_identifier]), (ACTIONS 4404, 2, [anon_sym_this, anon_sym_super]), (STATE 2756, 2,
       [sym_comment, sym_documentation_comment])]),
     (133488, 9, [(ACTIONS 3, 1, [anon_sym_SLASH_SLASH]), (ACTIONS 5, 1,
       [anon_sym_SLASH_STAR]), (ACTIONS 7, 1, [anon_sym_SLASH_SLASH_SLASH]), (ACTIONS 9, 1,
       [sym__block_comment]), (ACTIONS 11, 1, [sym__documentation_block_comment]), (ACTIONS 594,
       1, [anon_sym_RBRACE]), (ACTIONS 5919, 1, [anon_sym_COMMA]), (STATE 2605, 1,
       [aux_sym_list_literal_repeat1]), (STATE 2757, 2, [sym_comment,
       sym_documentation_comment])]),
     (133517, 8, [(ACTIONS 3, 1, [anon_sym_SLASH_SLASH]), (ACTIONS 5, 1,
       [anon_sym_SLASH_STAR]), (ACTIONS 7, 1, [anon_sym_SLASH_SLASH_SLASH]), (ACTIONS 9, 1,
       [sym__block_comment]), (ACTIONS 11, 1, [sym__documentation_block_comment]), (ACTIONS 5921,
       1, [anon_sym_RBRACE]), (ACTIONS 5923, 1, [anon_sym_COMMA]), (STATE 2758, 3, [sym_comment,
       sym_documentation_comment, aux_sym_switch_expression_repeat1])]),
     (133544, 9, [(ACTIONS 3, 1, [anon_sym_SLASH_SLASH]), (ACTIONS 5, 1,
       [anon_sym_SLASH_STAR]), (ACTIONS 7, 1, [anon_sym_SLASH_SLASH_SLASH]), (ACTIONS 9, 1,
       [sym__block_comment]), (ACTIONS 11, 1, [sym__documentation_block_comment]), (ACTIONS 5926,
       1, [anon_sym_COMMA]), (ACTIONS 5928, 1, [anon_sym_RPAREN]), (STATE 2728, 1,
       [aux_sym_parameter_type_list_repeat1]), (STATE 2759, 2, [sym_comment,
       sym_documentation_comment])]),
     (133573, 7, [(ACTIONS 3, 1, [anon_sym_SLASH_SLASH]), (ACTIONS 5, 1,
       [anon_sym_SLASH_STAR]), (ACTIONS 7, 1, [anon_sym_SLASH_SLASH_SLASH]), (ACTIONS 9, 1,
       [sym__block_comment]), (ACTIONS 11, 1, [sym__documentation_block_comment]), (STATE 2760,
       2, [sym_comment, sym_documentation_comment]), (ACTIONS 5930, 3, [anon_sym_COLON,
       anon_sym_RPAREN, anon_sym_EQ_GT])])]"

lemma small_run_870: "small_run 2754 133407 ts_small_parse_table_870 2761 133598"
  by (simp add: small_simps ts_small_parse_table_870_def)

definition ts_small_parse_table_871 :: "small_group list" where
  "ts_small_parse_table_871 = [
     (133598, 8, [(ACTIONS 3, 1, [anon_sym_SLASH_SLASH]), (ACTIONS 5, 1,
       [anon_sym_SLASH_STAR]), (ACTIONS 7, 1, [anon_sym_SLASH_SLASH_SLASH]), (ACTIONS 9, 1,
       [sym__block_comment]), (ACTIONS 11, 1, [sym__documentation_block_comment]), (ACTIONS 5932,
       1, [anon_sym_COMMA]), (ACTIONS 5935, 1, [anon_sym_GT]), (STATE 2761, 3, [sym_comment,
       sym_documentation_comment, aux_sym_type_parameters_repeat1])]),
     (133625, 9, [(ACTIONS 3, 1, [anon_sym_SLASH_SLASH]), (ACTIONS 5, 1,
       [anon_sym_SLASH_STAR]), (ACTIONS 7, 1, [anon_sym_SLASH_SLASH_SLASH]), (ACTIONS 9, 1,
       [sym__block_comment]), (ACTIONS 11, 1, [sym__documentation_block_comment]), (ACTIONS 5937,
       1, [anon_sym_RBRACE]), (ACTIONS 5939, 1, [anon_sym_COMMA]), (STATE 2768, 1,
       [aux_sym_record_type_repeat2]), (STATE 2762, 2, [sym_comment,
       sym_documentation_comment])]),
     (133654, 9, [(ACTIONS 3, 1, [anon_sym_SLASH_SLASH]), (ACTIONS 5, 1,
       [anon_sym_SLASH_STAR]), (ACTIONS 7, 1, [anon_sym_SLASH_SLASH_SLASH]), (ACTIONS 9, 1,
       [sym__block_comment]), (ACTIONS 11, 1, [sym__documentation_block_comment]), (ACTIONS 5509,
       1, [anon_sym_COMMA]), (ACTIONS 5941, 1, [anon_sym_RPAREN]), (STATE 2793, 1,
       [aux_sym__for_loop_parts_repeat2]), (STATE 2763, 2, [sym_comment,
       sym_documentation_comment])]),
     (133683, 9, [(ACTIONS 3, 1, [anon_sym_SLASH_SLASH]), (ACTIONS 5, 1,
       [anon_sym_SLASH_STAR]), (ACTIONS 7, 1, [anon_sym_SLASH_SLASH_SLASH]), (ACTIONS 9, 1,
       [sym__block_comment]), (ACTIONS 11, 1, [sym__documentation_block_comment]), (ACTIONS 5509,
       1, [anon_sym_COMMA]), (ACTIONS 5943, 1, [anon_sym_RPAREN]), (STATE 2857, 1,
       [aux_sym__for_loop_parts_repeat2]), (STATE 2764, 2, [sym_comment,
       sym_documentation_comment])]),
     (133712, 9, [(ACTIONS 3, 1, [anon_sym_SLASH_SLASH]), (ACTIONS 5, 1,
       [anon_sym_SLASH_STAR]), (ACTIONS 7, 1, [anon_sym_SLASH_SLASH_SLASH]), (ACTIONS 9, 1,
       [sym__block_comment]), (ACTIONS 11, 1, [sym__documentation_block_comment]), (ACTIONS 5945,
       1, [anon_sym_COMMA]), (ACTIONS 5947, 1, [anon_sym_SEMI]), (STATE 2976, 1,
       [aux_sym_static_final_declaration_list_repeat1]), (STATE 2765, 2, [sym_comment,
       sym_documentation_comment])]),
     (133741, 9, [(ACTIONS 3, 1, [anon_sym_SLASH_SLASH]), (ACTIONS 5, 1,
       [anon_sym_SLASH_STAR]), (ACTIONS 7, 1, [anon_sym_SLASH_SLASH_SLASH]), (ACTIONS 9, 1,
       [sym__block_comment]), (ACTIONS 11, 1, [sym__documentation_block_comment]), (ACTIONS 608,
       1, [anon_sym_RBRACK]), (ACTIONS 5949, 1, [anon_sym_COMMA]), (STATE 2605, 1,
       [aux_sym_list_literal_repeat1]), (STATE 2766, 2, [sym_comment,
       sym_documentation_comment])]),
     (133770, 9, [(ACTIONS 3, 1, [anon_sym_SLASH_SLASH]), (ACTIONS 5, 1,
       [anon_sym_SLASH_STAR]), (ACTIONS 7, 1, [anon_sym_SLASH_SLASH_SLASH]), (ACTIONS 9, 1,
       [sym__block_comment]), (ACTIONS 11, 1, [sym__documentation_block_comment]), (ACTIONS 4955,
       1, [anon_sym_class]), (ACTIONS 4961, 1, [anon_sym_mixin]), (STATE 3053, 1, [sym_mixin]),
       (STATE 2767, 2, [sym_comment, sym_documentation_comment])])]"

lemma small_run_871: "small_run 2761 133598 ts_small_parse_table_871 2768 133799"
  by (simp add: small_simps ts_small_parse_table_871_def)

definition ts_small_parse_table_872 :: "small_group list" where
  "ts_small_parse_table_872 = [
     (133799, 9, [(ACTIONS 3, 1, [anon_sym_SLASH_SLASH]), (ACTIONS 5, 1,
       [anon_sym_SLASH_STAR]), (ACTIONS 7, 1, [anon_sym_SLASH_SLASH_SLASH]), (ACTIONS 9, 1,
       [sym__block_comment]), (ACTIONS 11, 1, [sym__documentation_block_comment]), (ACTIONS 4254,
       1, [anon_sym_RBRACE]), (ACTIONS 5951, 1, [anon_sym_COMMA]), (STATE 2734, 1,
       [aux_sym_record_type_repeat2]), (STATE 2768, 2, [sym_comment,
       sym_documentation_comment])]),
     (133828, 9, [(ACTIONS 3, 1, [anon_sym_SLASH_SLASH]), (ACTIONS 5, 1,
       [anon_sym_SLASH_STAR]), (ACTIONS 7, 1, [anon_sym_SLASH_SLASH_SLASH]), (ACTIONS 9, 1,
       [sym__block_comment]), (ACTIONS 11, 1, [sym__documentation_block_comment]), (ACTIONS 5242,
       1, [anon_sym_LBRACE]), (ACTIONS 5953, 1, [anon_sym_EQ_GT]), (STATE 921, 1, [sym_block]),
       (STATE 2769, 2, [sym_comment, sym_documentation_comment])]),
     (133857, 7, [(ACTIONS 3, 1, [anon_sym_SLASH_SLASH]), (ACTIONS 5, 1,
       [anon_sym_SLASH_STAR]), (ACTIONS 7, 1, [anon_sym_SLASH_SLASH_SLASH]), (ACTIONS 9, 1,
       [sym__block_comment]), (ACTIONS 11, 1, [sym__documentation_block_comment]), (STATE 2770,
       2, [sym_comment, sym_documentation_comment]), (ACTIONS 5676, 3, [anon_sym_COMMA,
       anon_sym_RBRACK, anon_sym_RPAREN])]),
     (133882, 9, [(ACTIONS 3, 1, [anon_sym_SLASH_SLASH]), (ACTIONS 5, 1,
       [anon_sym_SLASH_STAR]), (ACTIONS 7, 1, [anon_sym_SLASH_SLASH_SLASH]), (ACTIONS 9, 1,
       [sym__block_comment]), (ACTIONS 11, 1, [sym__documentation_block_comment]), (ACTIONS 989,
       1, [anon_sym_RBRACK]), (ACTIONS 5955, 1, [anon_sym_COMMA]), (STATE 2863, 1,
       [aux_sym_list_pattern_repeat1]), (STATE 2771, 2, [sym_comment,
       sym_documentation_comment])]),
     (133911, 9, [(ACTIONS 3, 1, [anon_sym_SLASH_SLASH]), (ACTIONS 5, 1,
       [anon_sym_SLASH_STAR]), (ACTIONS 7, 1, [anon_sym_SLASH_SLASH_SLASH]), (ACTIONS 9, 1,
       [sym__block_comment]), (ACTIONS 11, 1, [sym__documentation_block_comment]), (ACTIONS 5509,
       1, [anon_sym_COMMA]), (ACTIONS 5957, 1, [anon_sym_RPAREN]), (STATE 2861, 1,
       [aux_sym__for_loop_parts_repeat2]), (STATE 2772, 2, [sym_comment,
       sym_documentation_comment])]),
     (133940, 9, [(ACTIONS 3, 1, [anon_sym_SLASH_SLASH]), (ACTIONS 5, 1,
       [anon_sym_SLASH_STAR]), (ACTIONS 7, 1, [anon_sym_SLASH_SLASH_SLASH]), (ACTIONS 9, 1,
       [sym__block_comment]), (ACTIONS 11, 1, [sym__documentation_block_comment]), (ACTIONS 2378,
       1, [anon_sym_RBRACE]), (ACTIONS 5959, 1, [anon_sym_COMMA]), (STATE 2979, 1,
       [aux_sym__named_formal_parameters_repeat1]), (STATE 2773, 2, [sym_comment,
       sym_documentation_comment])]),
     (133969, 9, [(ACTIONS 3, 1, [anon_sym_SLASH_SLASH]), (ACTIONS 5, 1,
       [anon_sym_SLASH_STAR]), (ACTIONS 7, 1, [anon_sym_SLASH_SLASH_SLASH]), (ACTIONS 9, 1,
       [sym__block_comment]), (ACTIONS 11, 1, [sym__documentation_block_comment]), (ACTIONS 588,
       1, [anon_sym_RBRACK]), (ACTIONS 5961, 1, [anon_sym_COMMA]), (STATE 2605, 1,
       [aux_sym_list_literal_repeat1]), (STATE 2774, 2, [sym_comment,
       sym_documentation_comment])])]"

lemma small_run_872: "small_run 2768 133799 ts_small_parse_table_872 2775 133998"
  by (simp add: small_simps ts_small_parse_table_872_def)

definition ts_small_parse_table_873 :: "small_group list" where
  "ts_small_parse_table_873 = [
     (133998, 9, [(ACTIONS 3, 1, [anon_sym_SLASH_SLASH]), (ACTIONS 5, 1,
       [anon_sym_SLASH_STAR]), (ACTIONS 7, 1, [anon_sym_SLASH_SLASH_SLASH]), (ACTIONS 9, 1,
       [sym__block_comment]), (ACTIONS 11, 1, [sym__documentation_block_comment]), (ACTIONS 578,
       1, [anon_sym_RBRACE]), (ACTIONS 5963, 1, [anon_sym_COMMA]), (STATE 2605, 1,
       [aux_sym_list_literal_repeat1]), (STATE 2775, 2, [sym_comment,
       sym_documentation_comment])]),
     (134027, 9, [(ACTIONS 3, 1, [anon_sym_SLASH_SLASH]), (ACTIONS 5, 1,
       [anon_sym_SLASH_STAR]), (ACTIONS 7, 1, [anon_sym_SLASH_SLASH_SLASH]), (ACTIONS 9, 1,
       [sym__block_comment]), (ACTIONS 11, 1, [sym__documentation_block_comment]), (ACTIONS 5509,
       1, [anon_sym_COMMA]), (ACTIONS 5965, 1, [anon_sym_RPAREN]), (STATE 2793, 1,
       [aux_sym__for_loop_parts_repeat2]), (STATE 2776, 2, [sym_comment,
       sym_documentation_comment])]),
     (134056, 9, [(ACTIONS 3, 1, [anon_sym_SLASH_SLASH]), (ACTIONS 5, 1,
       [anon_sym_SLASH_STAR]), (ACTIONS 7, 1, [anon_sym_SLASH_SLASH_SLASH]), (ACTIONS 9, 1,
       [sym__block_comment]), (ACTIONS 11, 1, [sym__documentation_block_comment]), (ACTIONS 2580,
       1, [anon_sym_RBRACK]), (ACTIONS 5967, 1, [anon_sym_COMMA]), (STATE 2964, 1,
       [aux_sym_positional_parameters_repeat1]), (STATE 2777, 2, [sym_comment,
       sym_documentation_comment])]),
     (134085, 9, [(ACTIONS 3, 1, [anon_sym_SLASH_SLASH]), (ACTIONS 5, 1,
       [anon_sym_SLASH_STAR]), (ACTIONS 7, 1, [anon_sym_SLASH_SLASH_SLASH]), (ACTIONS 9, 1,
       [sym__block_comment]), (ACTIONS 11, 1, [sym__documentation_block_comment]), (ACTIONS 5793,
       1, [anon_sym_COMMA]), (ACTIONS 5969, 1, [anon_sym_GT]), (STATE 2993, 1,
       [aux_sym_type_parameters_repeat1]), (STATE 2778, 2, [sym_comment,
       sym_documentation_comment])]),
     (134114, 9, [(ACTIONS 3, 1, [anon_sym_SLASH_SLASH]), (ACTIONS 5, 1,
       [anon_sym_SLASH_STAR]), (ACTIONS 7, 1, [anon_sym_SLASH_SLASH_SLASH]), (ACTIONS 9, 1,
       [sym__block_comment]), (ACTIONS 11, 1, [sym__documentation_block_comment]), (ACTIONS 2154,
       1, [anon_sym_QMARK]), (ACTIONS 5971, 1, [sym_identifier]), (STATE 2509, 1,
       [sym_nullable_type]), (STATE 2779, 2, [sym_comment, sym_documentation_comment])]),
     (134143, 9, [(ACTIONS 3, 1, [anon_sym_SLASH_SLASH]), (ACTIONS 5, 1,
       [anon_sym_SLASH_STAR]), (ACTIONS 7, 1, [anon_sym_SLASH_SLASH_SLASH]), (ACTIONS 9, 1,
       [sym__block_comment]), (ACTIONS 11, 1, [sym__documentation_block_comment]), (ACTIONS 1017,
       1, [anon_sym_RBRACE]), (ACTIONS 5973, 1, [anon_sym_COMMA]), (STATE 2758, 1,
       [aux_sym_switch_expression_repeat1]), (STATE 2780, 2, [sym_comment,
       sym_documentation_comment])]),
     (134172, 9, [(ACTIONS 3, 1, [anon_sym_SLASH_SLASH]), (ACTIONS 5, 1,
       [anon_sym_SLASH_STAR]), (ACTIONS 7, 1, [anon_sym_SLASH_SLASH_SLASH]), (ACTIONS 9, 1,
       [sym__block_comment]), (ACTIONS 11, 1, [sym__documentation_block_comment]), (ACTIONS 5509,
       1, [anon_sym_COMMA]), (ACTIONS 5975, 1, [anon_sym_RPAREN]), (STATE 2866, 1,
       [aux_sym__for_loop_parts_repeat2]), (STATE 2781, 2, [sym_comment,
       sym_documentation_comment])])]"

lemma small_run_873: "small_run 2775 133998 ts_small_parse_table_873 2782 134201"
  by (simp add: small_simps ts_small_parse_table_873_def)

definition ts_small_parse_table_874 :: "small_group list" where
  "ts_small_parse_table_874 = [
     (134201, 9, [(ACTIONS 3, 1, [anon_sym_SLASH_SLASH]), (ACTIONS 5, 1,
       [anon_sym_SLASH_STAR]), (ACTIONS 7, 1, [anon_sym_SLASH_SLASH_SLASH]), (ACTIONS 9, 1,
       [sym__block_comment]), (ACTIONS 11, 1, [sym__documentation_block_comment]), (ACTIONS 572,
       1, [anon_sym_RBRACK]), (ACTIONS 5977, 1, [anon_sym_COMMA]), (STATE 2774, 1,
       [aux_sym_list_literal_repeat1]), (STATE 2782, 2, [sym_comment,
       sym_documentation_comment])]),
     (134230, 7, [(ACTIONS 3, 1, [anon_sym_SLASH_SLASH]), (ACTIONS 5, 1,
       [anon_sym_SLASH_STAR]), (ACTIONS 7, 1, [anon_sym_SLASH_SLASH_SLASH]), (ACTIONS 9, 1,
       [sym__block_comment]), (ACTIONS 11, 1, [sym__documentation_block_comment]), (STATE 2783,
       2, [sym_comment, sym_documentation_comment]), (ACTIONS 5979, 3, [anon_sym_LPAREN,
       anon_sym_LT, sym_identifier])]),
     (134255, 9, [(ACTIONS 3, 1, [anon_sym_SLASH_SLASH]), (ACTIONS 5, 1,
       [anon_sym_SLASH_STAR]), (ACTIONS 7, 1, [anon_sym_SLASH_SLASH_SLASH]), (ACTIONS 9, 1,
       [sym__block_comment]), (ACTIONS 11, 1, [sym__documentation_block_comment]), (ACTIONS 562,
       1, [anon_sym_RBRACE]), (ACTIONS 5981, 1, [anon_sym_COMMA]), (STATE 2775, 1,
       [aux_sym_list_literal_repeat1]), (STATE 2784, 2, [sym_comment,
       sym_documentation_comment])]),
     (134284, 9, [(ACTIONS 3, 1, [anon_sym_SLASH_SLASH]), (ACTIONS 5, 1,
       [anon_sym_SLASH_STAR]), (ACTIONS 7, 1, [anon_sym_SLASH_SLASH_SLASH]), (ACTIONS 9, 1,
       [sym__block_comment]), (ACTIONS 11, 1, [sym__documentation_block_comment]), (ACTIONS 572,
       1, [anon_sym_RBRACK]), (ACTIONS 5977, 1, [anon_sym_COMMA]), (STATE 2605, 1,
       [aux_sym_list_literal_repeat1]), (STATE 2785, 2, [sym_comment,
       sym_documentation_comment])]),
     (134313, 9, [(ACTIONS 3, 1, [anon_sym_SLASH_SLASH]), (ACTIONS 5, 1,
       [anon_sym_SLASH_STAR]), (ACTIONS 7, 1, [anon_sym_SLASH_SLASH_SLASH]), (ACTIONS 9, 1,
       [sym__block_comment]), (ACTIONS 11, 1, [sym__documentation_block_comment]), (ACTIONS 526,
       1, [anon_sym_RBRACK]), (ACTIONS 5983, 1, [anon_sym_COMMA]), (STATE 2862, 1,
       [aux_sym_list_literal_repeat1]), (STATE 2786, 2, [sym_comment,
       sym_documentation_comment])]),
     (134342, 9, [(ACTIONS 3, 1, [anon_sym_SLASH_SLASH]), (ACTIONS 5, 1,
       [anon_sym_SLASH_STAR]), (ACTIONS 7, 1, [anon_sym_SLASH_SLASH_SLASH]), (ACTIONS 9, 1,
       [sym__block_comment]), (ACTIONS 11, 1, [sym__documentation_block_comment]), (ACTIONS 562,
       1, [anon_sym_RBRACE]), (ACTIONS 5981, 1, [anon_sym_COMMA]), (STATE 2605, 1,
       [aux_sym_list_literal_repeat1]), (STATE 2787, 2, [sym_comment,
       sym_documentation_comment])]),
     (134371, 8, [(ACTIONS 3, 1, [anon_sym_SLASH_SLASH]), (ACTIONS 5, 1,
       [anon_sym_SLASH_STAR]), (ACTIONS 7, 1, [anon_sym_SLASH_SLASH_SLASH]), (ACTIONS 9, 1,
       [sym__block_comment]), (ACTIONS 11, 1, [sym__documentation_block_comment]), (ACTIONS 5985,
       1, [anon_sym_COMMA]), (ACTIONS 5988, 1, [anon_sym_RPAREN]), (STATE 2788, 3, [sym_comment,
       sym_documentation_comment, aux_sym__normal_formal_parameters_repeat1])])]"

lemma small_run_874: "small_run 2782 134201 ts_small_parse_table_874 2789 134398"
  by (simp add: small_simps ts_small_parse_table_874_def)

definition ts_small_parse_table_875 :: "small_group list" where
  "ts_small_parse_table_875 = [
     (134398, 7, [(ACTIONS 3, 1, [anon_sym_SLASH_SLASH]), (ACTIONS 5, 1,
       [anon_sym_SLASH_STAR]), (ACTIONS 7, 1, [anon_sym_SLASH_SLASH_SLASH]), (ACTIONS 9, 1,
       [sym__block_comment]), (ACTIONS 11, 1, [sym__documentation_block_comment]), (STATE 2789,
       2, [sym_comment, sym_documentation_comment]), (ACTIONS 5990, 3, [anon_sym_this,
       anon_sym_super, sym_identifier])]),
     (134423, 9, [(ACTIONS 3, 1, [anon_sym_SLASH_SLASH]), (ACTIONS 5, 1,
       [anon_sym_SLASH_STAR]), (ACTIONS 7, 1, [anon_sym_SLASH_SLASH_SLASH]), (ACTIONS 9, 1,
       [sym__block_comment]), (ACTIONS 11, 1, [sym__documentation_block_comment]), (ACTIONS 594,
       1, [anon_sym_RBRACE]), (ACTIONS 5919, 1, [anon_sym_COMMA]), (STATE 2839, 1,
       [aux_sym_list_literal_repeat1]), (STATE 2790, 2, [sym_comment,
       sym_documentation_comment])]),
     (134452, 9, [(ACTIONS 3, 1, [anon_sym_SLASH_SLASH]), (ACTIONS 5, 1,
       [anon_sym_SLASH_STAR]), (ACTIONS 7, 1, [anon_sym_SLASH_SLASH_SLASH]), (ACTIONS 9, 1,
       [sym__block_comment]), (ACTIONS 11, 1, [sym__documentation_block_comment]), (ACTIONS 5992,
       1, [anon_sym_COMMA]), (ACTIONS 5994, 1, [anon_sym_RBRACK]), (STATE 2777, 1,
       [aux_sym_positional_parameters_repeat1]), (STATE 2791, 2, [sym_comment,
       sym_documentation_comment])]),
     (134481, 9, [(ACTIONS 3, 1, [anon_sym_SLASH_SLASH]), (ACTIONS 5, 1,
       [anon_sym_SLASH_STAR]), (ACTIONS 7, 1, [anon_sym_SLASH_SLASH_SLASH]), (ACTIONS 9, 1,
       [sym__block_comment]), (ACTIONS 11, 1, [sym__documentation_block_comment]), (ACTIONS 5996,
       1, [anon_sym_RBRACE]), (ACTIONS 5998, 1, [anon_sym_COMMA]), (STATE 2780, 1,
       [aux_sym_switch_expression_repeat1]), (STATE 2792, 2, [sym_comment,
       sym_documentation_comment])]),
     (134510, 8, [(ACTIONS 3, 1, [anon_sym_SLASH_SLASH]), (ACTIONS 5, 1,
       [anon_sym_SLASH_STAR]), (ACTIONS 7, 1, [anon_sym_SLASH_SLASH_SLASH]), (ACTIONS 9, 1,
       [sym__block_comment]), (ACTIONS 11, 1, [sym__documentation_block_comment]), (ACTIONS 6000,
       1, [anon_sym_COMMA]), (ACTIONS 6003, 1, [anon_sym_RPAREN]), (STATE 2793, 3, [sym_comment,
       sym_documentation_comment, aux_sym__for_loop_parts_repeat2])]),
     (134537, 9, [(ACTIONS 3, 1, [anon_sym_SLASH_SLASH]), (ACTIONS 5, 1,
       [anon_sym_SLASH_STAR]), (ACTIONS 7, 1, [anon_sym_SLASH_SLASH_SLASH]), (ACTIONS 9, 1,
       [sym__block_comment]), (ACTIONS 11, 1, [sym__documentation_block_comment]), (ACTIONS 6005,
       1, [anon_sym_COMMA]), (ACTIONS 6007, 1, [anon_sym_RPAREN]), (STATE 2810, 1,
       [aux_sym_record_type_repeat1]), (STATE 2794, 2, [sym_comment,
       sym_documentation_comment])]),
     (134566, 9, [(ACTIONS 3, 1, [anon_sym_SLASH_SLASH]), (ACTIONS 5, 1,
       [anon_sym_SLASH_STAR]), (ACTIONS 7, 1, [anon_sym_SLASH_SLASH_SLASH]), (ACTIONS 9, 1,
       [sym__block_comment]), (ACTIONS 11, 1, [sym__documentation_block_comment]), (ACTIONS 608,
       1, [anon_sym_RBRACK]), (ACTIONS 5949, 1, [anon_sym_COMMA]), (STATE 2674, 1,
       [aux_sym_list_literal_repeat1]), (STATE 2795, 2, [sym_comment,
       sym_documentation_comment])])]"

lemma small_run_875: "small_run 2789 134398 ts_small_parse_table_875 2796 134595"
  by (simp add: small_simps ts_small_parse_table_875_def)

definition ts_small_parse_table_876 :: "small_group list" where
  "ts_small_parse_table_876 = [
     (134595, 9, [(ACTIONS 3, 1, [anon_sym_SLASH_SLASH]), (ACTIONS 5, 1,
       [anon_sym_SLASH_STAR]), (ACTIONS 7, 1, [anon_sym_SLASH_SLASH_SLASH]), (ACTIONS 9, 1,
       [sym__block_comment]), (ACTIONS 11, 1, [sym__documentation_block_comment]), (ACTIONS 5509,
       1, [anon_sym_COMMA]), (ACTIONS 6009, 1, [anon_sym_RPAREN]), (STATE 2793, 1,
       [aux_sym__for_loop_parts_repeat2]), (STATE 2796, 2, [sym_comment,
       sym_documentation_comment])]),
     (134624, 9, [(ACTIONS 3, 1, [anon_sym_SLASH_SLASH]), (ACTIONS 5, 1,
       [anon_sym_SLASH_STAR]), (ACTIONS 7, 1, [anon_sym_SLASH_SLASH_SLASH]), (ACTIONS 9, 1,
       [sym__block_comment]), (ACTIONS 11, 1, [sym__documentation_block_comment]), (ACTIONS 6011,
       1, [anon_sym_COMMA]), (ACTIONS 6013, 1, [anon_sym_RBRACK]), (STATE 2869, 1,
       [aux_sym_list_literal_repeat1]), (STATE 2797, 2, [sym_comment,
       sym_documentation_comment])]),
     (134653, 9, [(ACTIONS 3, 1, [anon_sym_SLASH_SLASH]), (ACTIONS 5, 1,
       [anon_sym_SLASH_STAR]), (ACTIONS 7, 1, [anon_sym_SLASH_SLASH_SLASH]), (ACTIONS 9, 1,
       [sym__block_comment]), (ACTIONS 11, 1, [sym__documentation_block_comment]), (ACTIONS 654,
       1, [anon_sym_RBRACE]), (ACTIONS 6015, 1, [anon_sym_COMMA]), (STATE 2848, 1,
       [aux_sym_map_pattern_repeat1]), (STATE 2798, 2, [sym_comment,
       sym_documentation_comment])]),
     (134682, 9, [(ACTIONS 3, 1, [anon_sym_SLASH_SLASH]), (ACTIONS 5, 1,
       [anon_sym_SLASH_STAR]), (ACTIONS 7, 1, [anon_sym_SLASH_SLASH_SLASH]), (ACTIONS 9, 1,
       [sym__block_comment]), (ACTIONS 11, 1, [sym__documentation_block_comment]), (ACTIONS 5805,
       1, [sym_identifier]), (STATE 2991, 1, [sym_initialized_identifier]), (STATE 3520, 1,
       [sym_initialized_identifier_list]), (STATE 2799, 2, [sym_comment,
       sym_documentation_comment])]),
     (134711, 9, [(ACTIONS 3, 1, [anon_sym_SLASH_SLASH]), (ACTIONS 5, 1,
       [anon_sym_SLASH_STAR]), (ACTIONS 7, 1, [anon_sym_SLASH_SLASH_SLASH]), (ACTIONS 9, 1,
       [sym__block_comment]), (ACTIONS 11, 1, [sym__documentation_block_comment]), (ACTIONS 4256,
       1, [anon_sym_RBRACE]), (ACTIONS 6017, 1, [anon_sym_COMMA]), (STATE 2815, 1,
       [aux_sym_record_type_repeat2]), (STATE 2800, 2, [sym_comment,
       sym_documentation_comment])]),
     (134740, 9, [(ACTIONS 3, 1, [anon_sym_SLASH_SLASH]), (ACTIONS 5, 1,
       [anon_sym_SLASH_STAR]), (ACTIONS 7, 1, [anon_sym_SLASH_SLASH_SLASH]), (ACTIONS 9, 1,
       [sym__block_comment]), (ACTIONS 11, 1, [sym__documentation_block_comment]), (ACTIONS 6019,
       1, [anon_sym_RBRACE]), (ACTIONS 6021, 1, [anon_sym_COMMA]), (STATE 2890, 1,
       [aux_sym_list_literal_repeat1]), (STATE 2801, 2, [sym_comment,
       sym_documentation_comment])]),
     (134769, 9, [(ACTIONS 3, 1, [anon_sym_SLASH_SLASH]), (ACTIONS 5, 1,
       [anon_sym_SLASH_STAR]), (ACTIONS 7, 1, [anon_sym_SLASH_SLASH_SLASH]), (ACTIONS 9, 1,
       [sym__block_comment]), (ACTIONS 11, 1, [sym__documentation_block_comment]), (ACTIONS 512,
       1, [anon_sym_RBRACK]), (ACTIONS 6023, 1, [anon_sym_COMMA]), (STATE 2785, 1,
       [aux_sym_list_literal_repeat1]), (STATE 2802, 2, [sym_comment,
       sym_documentation_comment])])]"

lemma small_run_876: "small_run 2796 134595 ts_small_parse_table_876 2803 134798"
  by (simp add: small_simps ts_small_parse_table_876_def)

definition ts_small_parse_table_877 :: "small_group list" where
  "ts_small_parse_table_877 = [
     (134798, 9, [(ACTIONS 3, 1, [anon_sym_SLASH_SLASH]), (ACTIONS 5, 1,
       [anon_sym_SLASH_STAR]), (ACTIONS 7, 1, [anon_sym_SLASH_SLASH_SLASH]), (ACTIONS 9, 1,
       [sym__block_comment]), (ACTIONS 11, 1, [sym__documentation_block_comment]), (ACTIONS 510,
       1, [anon_sym_RBRACE]), (ACTIONS 6025, 1, [anon_sym_COMMA]), (STATE 2787, 1,
       [aux_sym_list_literal_repeat1]), (STATE 2803, 2, [sym_comment,
       sym_documentation_comment])]),
     (134827, 9, [(ACTIONS 3, 1, [anon_sym_SLASH_SLASH]), (ACTIONS 5, 1,
       [anon_sym_SLASH_STAR]), (ACTIONS 7, 1, [anon_sym_SLASH_SLASH_SLASH]), (ACTIONS 9, 1,
       [sym__block_comment]), (ACTIONS 11, 1, [sym__documentation_block_comment]), (ACTIONS 6027,
       1, [anon_sym_RBRACE]), (ACTIONS 6029, 1, [anon_sym_COMMA]), (STATE 2883, 1,
       [aux_sym_record_type_repeat2]), (STATE 2804, 2, [sym_comment,
       sym_documentation_comment])]),
     (134856, 9, [(ACTIONS 3, 1, [anon_sym_SLASH_SLASH]), (ACTIONS 5, 1,
       [anon_sym_SLASH_STAR]), (ACTIONS 7, 1, [anon_sym_SLASH_SLASH_SLASH]), (ACTIONS 9, 1,
       [sym__block_comment]), (ACTIONS 11, 1, [sym__documentation_block_comment]), (ACTIONS 6031,
       1, [anon_sym_COMMA]), (ACTIONS 6033, 1, [anon_sym_RPAREN]), (STATE 2694, 1,
       [aux_sym__record_literal_no_const_repeat1]), (STATE 2805, 2, [sym_comment,
       sym_documentation_comment])]),
     (134885, 9, [(ACTIONS 3, 1, [anon_sym_SLASH_SLASH]), (ACTIONS 5, 1,
       [anon_sym_SLASH_STAR]), (ACTIONS 7, 1, [anon_sym_SLASH_SLASH_SLASH]), (ACTIONS 9, 1,
       [sym__block_comment]), (ACTIONS 11, 1, [sym__documentation_block_comment]), (ACTIONS 512,
       1, [anon_sym_RBRACK]), (ACTIONS 6023, 1, [anon_sym_COMMA]), (STATE 2605, 1,
       [aux_sym_list_literal_repeat1]), (STATE 2806, 2, [sym_comment,
       sym_documentation_comment])]),
     (134914, 9, [(ACTIONS 3, 1, [anon_sym_SLASH_SLASH]), (ACTIONS 5, 1,
       [anon_sym_SLASH_STAR]), (ACTIONS 7, 1, [anon_sym_SLASH_SLASH_SLASH]), (ACTIONS 9, 1,
       [sym__block_comment]), (ACTIONS 11, 1, [sym__documentation_block_comment]), (ACTIONS 4278,
       1, [anon_sym_LPAREN]), (STATE 2016, 1, [sym__strict_formal_parameter_list]), (STATE 2285,
       1, [sym_formal_parameter_list]), (STATE 2807, 2, [sym_comment,
       sym_documentation_comment])]),
     (134943, 8, [(ACTIONS 3, 1, [anon_sym_SLASH_SLASH]), (ACTIONS 5, 1,
       [anon_sym_SLASH_STAR]), (ACTIONS 7, 1, [anon_sym_SLASH_SLASH_SLASH]), (ACTIONS 9, 1,
       [sym__block_comment]), (ACTIONS 11, 1, [sym__documentation_block_comment]), (ACTIONS 6035,
       1, [anon_sym_RBRACE]), (ACTIONS 6037, 1, [anon_sym_COMMA]), (STATE 2808, 3, [sym_comment,
       sym_documentation_comment, aux_sym_map_pattern_repeat1])]),
     (134970, 9, [(ACTIONS 3, 1, [anon_sym_SLASH_SLASH]), (ACTIONS 5, 1,
       [anon_sym_SLASH_STAR]), (ACTIONS 7, 1, [anon_sym_SLASH_SLASH_SLASH]), (ACTIONS 9, 1,
       [sym__block_comment]), (ACTIONS 11, 1, [sym__documentation_block_comment]), (ACTIONS 510,
       1, [anon_sym_RBRACE]), (ACTIONS 6025, 1, [anon_sym_COMMA]), (STATE 2605, 1,
       [aux_sym_list_literal_repeat1]), (STATE 2809, 2, [sym_comment,
       sym_documentation_comment])])]"

lemma small_run_877: "small_run 2803 134798 ts_small_parse_table_877 2810 134999"
  by (simp add: small_simps ts_small_parse_table_877_def)

definition ts_small_parse_table_878 :: "small_group list" where
  "ts_small_parse_table_878 = [
     (134999, 9, [(ACTIONS 3, 1, [anon_sym_SLASH_SLASH]), (ACTIONS 5, 1,
       [anon_sym_SLASH_STAR]), (ACTIONS 7, 1, [anon_sym_SLASH_SLASH_SLASH]), (ACTIONS 9, 1,
       [sym__block_comment]), (ACTIONS 11, 1, [sym__documentation_block_comment]), (ACTIONS 4220,
       1, [anon_sym_RPAREN]), (ACTIONS 6040, 1, [anon_sym_COMMA]), (STATE 2922, 1,
       [aux_sym_record_type_repeat1]), (STATE 2810, 2, [sym_comment,
       sym_documentation_comment])]),
     (135028, 9, [(ACTIONS 3, 1, [anon_sym_SLASH_SLASH]), (ACTIONS 5, 1,
       [anon_sym_SLASH_STAR]), (ACTIONS 7, 1, [anon_sym_SLASH_SLASH_SLASH]), (ACTIONS 9, 1,
       [sym__block_comment]), (ACTIONS 11, 1, [sym__documentation_block_comment]), (ACTIONS 1015,
       1, [anon_sym_RBRACE]), (ACTIONS 6042, 1, [anon_sym_COMMA]), (STATE 2758, 1,
       [aux_sym_switch_expression_repeat1]), (STATE 2811, 2, [sym_comment,
       sym_documentation_comment])]),
     (135057, 9, [(ACTIONS 3, 1, [anon_sym_SLASH_SLASH]), (ACTIONS 5, 1,
       [anon_sym_SLASH_STAR]), (ACTIONS 7, 1, [anon_sym_SLASH_SLASH_SLASH]), (ACTIONS 9, 1,
       [sym__block_comment]), (ACTIONS 11, 1, [sym__documentation_block_comment]), (ACTIONS 3761,
       1, [anon_sym_RPAREN]), (ACTIONS 6044, 1, [anon_sym_COMMA]), (STATE 2630, 1,
       [aux_sym_parameter_type_list_repeat1]), (STATE 2812, 2, [sym_comment,
       sym_documentation_comment])]),
     (135086, 9, [(ACTIONS 3, 1, [anon_sym_SLASH_SLASH]), (ACTIONS 5, 1,
       [anon_sym_SLASH_STAR]), (ACTIONS 7, 1, [anon_sym_SLASH_SLASH_SLASH]), (ACTIONS 9, 1,
       [sym__block_comment]), (ACTIONS 11, 1, [sym__documentation_block_comment]), (ACTIONS 5754,
       1, [anon_sym_COMMA]), (ACTIONS 6046, 1, [anon_sym_GT]), (STATE 2989, 1,
       [aux_sym_type_arguments_repeat1]), (STATE 2813, 2, [sym_comment,
       sym_documentation_comment])]),
     (135115, 9, [(ACTIONS 3, 1, [anon_sym_SLASH_SLASH]), (ACTIONS 9, 1, [sym__block_comment]),
       (ACTIONS 11, 1, [sym__documentation_block_comment]), (ACTIONS 5165, 1,
       [anon_sym_SLASH_STAR]), (ACTIONS 5167, 1, [anon_sym_SLASH_SLASH_SLASH]), (ACTIONS 6048, 1,
       [anon_sym_LBRACE]), (ACTIONS 6050, 1, [aux_sym__sub_string_test_token1]), (ACTIONS 6052,
       1, [sym_identifier_dollar_escaped]), (STATE 2814, 2, [sym_comment,
       sym_documentation_comment])]),
     (135144, 9, [(ACTIONS 3, 1, [anon_sym_SLASH_SLASH]), (ACTIONS 5, 1,
       [anon_sym_SLASH_STAR]), (ACTIONS 7, 1, [anon_sym_SLASH_SLASH_SLASH]), (ACTIONS 9, 1,
       [sym__block_comment]), (ACTIONS 11, 1, [sym__documentation_block_comment]), (ACTIONS 4258,
       1, [anon_sym_RBRACE]), (ACTIONS 6054, 1, [anon_sym_COMMA]), (STATE 2734, 1,
       [aux_sym_record_type_repeat2]), (STATE 2815, 2, [sym_comment,
       sym_documentation_comment])]),
     (135173, 9, [(ACTIONS 3, 1, [anon_sym_SLASH_SLASH]), (ACTIONS 5, 1,
       [anon_sym_SLASH_STAR]), (ACTIONS 7, 1, [anon_sym_SLASH_SLASH_SLASH]), (ACTIONS 9, 1,
       [sym__block_comment]), (ACTIONS 11, 1, [sym__documentation_block_comment]), (ACTIONS 4258,
       1, [anon_sym_RBRACE]), (ACTIONS 6054, 1, [anon_sym_COMMA]), (STATE 2821, 1,
       [aux_sym_record_type_repeat2]), (STATE 2816, 2, [sym_comment,
       sym_documentation_comment])])]"

lemma small_run_878: "small_run 2810 134999 ts_small_parse_table_878 2817 135202"
  by (simp add: small_simps ts_small_parse_table_878_def)

definition ts_small_parse_table_879 :: "small_group list" where
  "ts_small_parse_table_879 = [
     (135202, 9, [(ACTIONS 3, 1, [anon_sym_SLASH_SLASH]), (ACTIONS 5, 1,
       [anon_sym_SLASH_STAR]), (ACTIONS 7, 1, [anon_sym_SLASH_SLASH_SLASH]), (ACTIONS 9, 1,
       [sym__block_comment]), (ACTIONS 11, 1, [sym__documentation_block_comment]), (ACTIONS 528,
       1, [anon_sym_RBRACE]), (ACTIONS 6056, 1, [anon_sym_COMMA]), (STATE 2846, 1,
       [aux_sym_list_literal_repeat1]), (STATE 2817, 2, [sym_comment,
       sym_documentation_comment])]),
     (135231, 9, [(ACTIONS 3, 1, [anon_sym_SLASH_SLASH]), (ACTIONS 5, 1,
       [anon_sym_SLASH_STAR]), (ACTIONS 7, 1, [anon_sym_SLASH_SLASH_SLASH]), (ACTIONS 9, 1,
       [sym__block_comment]), (ACTIONS 11, 1, [sym__documentation_block_comment]), (ACTIONS 5282,
       1, [anon_sym_LBRACE]), (ACTIONS 6058, 1, [anon_sym_EQ_GT]), (STATE 1142, 1, [sym_block]),
       (STATE 2818, 2, [sym_comment, sym_documentation_comment])]),
     (135260, 9, [(ACTIONS 3, 1, [anon_sym_SLASH_SLASH]), (ACTIONS 5, 1,
       [anon_sym_SLASH_STAR]), (ACTIONS 7, 1, [anon_sym_SLASH_SLASH_SLASH]), (ACTIONS 9, 1,
       [sym__block_comment]), (ACTIONS 11, 1, [sym__documentation_block_comment]), (ACTIONS 644,
       1, [anon_sym_RBRACE]), (ACTIONS 6060, 1, [anon_sym_COMMA]), (STATE 2808, 1,
       [aux_sym_map_pattern_repeat1]), (STATE 2819, 2, [sym_comment,
       sym_documentation_comment])]),
     (135289, 7, [(ACTIONS 3, 1, [anon_sym_SLASH_SLASH]), (ACTIONS 5, 1,
       [anon_sym_SLASH_STAR]), (ACTIONS 7, 1, [anon_sym_SLASH_SLASH_SLASH]), (ACTIONS 9, 1,
       [sym__block_comment]), (ACTIONS 11, 1, [sym__documentation_block_comment]), (STATE 2820,
       2, [sym_comment, sym_documentation_comment]), (ACTIONS 6062, 3, [anon_sym_RBRACE,
       anon_sym_COMMA, anon_sym_SEMI])]),
     (135314, 9, [(ACTIONS 3, 1, [anon_sym_SLASH_SLASH]), (ACTIONS 5, 1,
       [anon_sym_SLASH_STAR]), (ACTIONS 7, 1, [anon_sym_SLASH_SLASH_SLASH]), (ACTIONS 9, 1,
       [sym__block_comment]), (ACTIONS 11, 1, [sym__documentation_block_comment]), (ACTIONS 4140,
       1, [anon_sym_RBRACE]), (ACTIONS 6064, 1, [anon_sym_COMMA]), (STATE 2734, 1,
       [aux_sym_record_type_repeat2]), (STATE 2821, 2, [sym_comment,
       sym_documentation_comment])]),
     (135343, 8, [(ACTIONS 3, 1, [anon_sym_SLASH_SLASH]), (ACTIONS 5, 1,
       [anon_sym_SLASH_STAR]), (ACTIONS 7, 1, [anon_sym_SLASH_SLASH_SLASH]), (ACTIONS 9, 1,
       [sym__block_comment]), (ACTIONS 11, 1, [sym__documentation_block_comment]), (ACTIONS 6066,
       1, [sym_identifier]), (ACTIONS 5540, 2, [anon_sym_COMMA, anon_sym_RPAREN]), (STATE 2822,
       2, [sym_comment, sym_documentation_comment])]),
     (135370, 9, [(ACTIONS 3, 1, [anon_sym_SLASH_SLASH]), (ACTIONS 5, 1,
       [anon_sym_SLASH_STAR]), (ACTIONS 7, 1, [anon_sym_SLASH_SLASH_SLASH]), (ACTIONS 9, 1,
       [sym__block_comment]), (ACTIONS 11, 1, [sym__documentation_block_comment]), (ACTIONS 5793,
       1, [anon_sym_COMMA]), (ACTIONS 6068, 1, [anon_sym_GT]), (STATE 2851, 1,
       [aux_sym_type_parameters_repeat1]), (STATE 2823, 2, [sym_comment,
       sym_documentation_comment])])]"

lemma small_run_879: "small_run 2817 135202 ts_small_parse_table_879 2824 135399"
  by (simp add: small_simps ts_small_parse_table_879_def)

definition ts_small_parse_table_880 :: "small_group list" where
  "ts_small_parse_table_880 = [
     (135399, 9, [(ACTIONS 3, 1, [anon_sym_SLASH_SLASH]), (ACTIONS 5, 1,
       [anon_sym_SLASH_STAR]), (ACTIONS 7, 1, [anon_sym_SLASH_SLASH_SLASH]), (ACTIONS 9, 1,
       [sym__block_comment]), (ACTIONS 11, 1, [sym__documentation_block_comment]), (ACTIONS 969,
       1, [anon_sym_RBRACK]), (ACTIONS 6070, 1, [anon_sym_COMMA]), (STATE 2753, 1,
       [aux_sym_list_pattern_repeat1]), (STATE 2824, 2, [sym_comment,
       sym_documentation_comment])]),
     (135428, 9, [(ACTIONS 3, 1, [anon_sym_SLASH_SLASH]), (ACTIONS 5, 1,
       [anon_sym_SLASH_STAR]), (ACTIONS 7, 1, [anon_sym_SLASH_SLASH_SLASH]), (ACTIONS 9, 1,
       [sym__block_comment]), (ACTIONS 11, 1, [sym__documentation_block_comment]), (ACTIONS 6072,
       1, [anon_sym_RBRACE]), (ACTIONS 6074, 1, [anon_sym_COMMA]), (STATE 2829, 1,
       [aux_sym_record_type_repeat2]), (STATE 2825, 2, [sym_comment,
       sym_documentation_comment])]),
     (135457, 9, [(ACTIONS 3, 1, [anon_sym_SLASH_SLASH]), (ACTIONS 5, 1,
       [anon_sym_SLASH_STAR]), (ACTIONS 7, 1, [anon_sym_SLASH_SLASH_SLASH]), (ACTIONS 9, 1,
       [sym__block_comment]), (ACTIONS 11, 1, [sym__documentation_block_comment]), (ACTIONS 3161,
       1, [anon_sym_LT]), (ACTIONS 5717, 1, [anon_sym_DOT]), (STATE 3340, 1,
       [sym_type_arguments]), (STATE 2826, 2, [sym_comment, sym_documentation_comment])]),
     (135486, 9, [(ACTIONS 3, 1, [anon_sym_SLASH_SLASH]), (ACTIONS 5, 1,
       [anon_sym_SLASH_STAR]), (ACTIONS 7, 1, [anon_sym_SLASH_SLASH_SLASH]), (ACTIONS 9, 1,
       [sym__block_comment]), (ACTIONS 11, 1, [sym__documentation_block_comment]), (ACTIONS 6076,
       1, [anon_sym_COMMA]), (ACTIONS 6078, 1, [anon_sym_RPAREN]), (STATE 2900, 1,
       [aux_sym_record_type_repeat1]), (STATE 2827, 2, [sym_comment,
       sym_documentation_comment])]),
     (135515, 9, [(ACTIONS 3, 1, [anon_sym_SLASH_SLASH]), (ACTIONS 5, 1,
       [anon_sym_SLASH_STAR]), (ACTIONS 7, 1, [anon_sym_SLASH_SLASH_SLASH]), (ACTIONS 9, 1,
       [sym__block_comment]), (ACTIONS 11, 1, [sym__documentation_block_comment]), (ACTIONS 514,
       1, [anon_sym_RBRACK]), (ACTIONS 6080, 1, [anon_sym_COMMA]), (STATE 2806, 1,
       [aux_sym_list_literal_repeat1]), (STATE 2828, 2, [sym_comment,
       sym_documentation_comment])]),
     (135544, 9, [(ACTIONS 3, 1, [anon_sym_SLASH_SLASH]), (ACTIONS 5, 1,
       [anon_sym_SLASH_STAR]), (ACTIONS 7, 1, [anon_sym_SLASH_SLASH_SLASH]), (ACTIONS 9, 1,
       [sym__block_comment]), (ACTIONS 11, 1, [sym__documentation_block_comment]), (ACTIONS 4268,
       1, [anon_sym_RBRACE]), (ACTIONS 6082, 1, [anon_sym_COMMA]), (STATE 2734, 1,
       [aux_sym_record_type_repeat2]), (STATE 2829, 2, [sym_comment,
       sym_documentation_comment])]),
     (135573, 9, [(ACTIONS 3, 1, [anon_sym_SLASH_SLASH]), (ACTIONS 5, 1,
       [anon_sym_SLASH_STAR]), (ACTIONS 7, 1, [anon_sym_SLASH_SLASH_SLASH]), (ACTIONS 9, 1,
       [sym__block_comment]), (ACTIONS 11, 1, [sym__documentation_block_comment]), (ACTIONS 516,
       1, [anon_sym_RBRACE]), (ACTIONS 6084, 1, [anon_sym_COMMA]), (STATE 2809, 1,
       [aux_sym_list_literal_repeat1]), (STATE 2830, 2, [sym_comment,
       sym_documentation_comment])])]"

lemma small_run_880: "small_run 2824 135399 ts_small_parse_table_880 2831 135602"
  by (simp add: small_simps ts_small_parse_table_880_def)

definition ts_small_parse_table_881 :: "small_group list" where
  "ts_small_parse_table_881 = [
     (135602, 9, [(ACTIONS 3, 1, [anon_sym_SLASH_SLASH]), (ACTIONS 5, 1,
       [anon_sym_SLASH_STAR]), (ACTIONS 7, 1, [anon_sym_SLASH_SLASH_SLASH]), (ACTIONS 9, 1,
       [sym__block_comment]), (ACTIONS 11, 1, [sym__documentation_block_comment]), (ACTIONS 5793,
       1, [anon_sym_COMMA]), (ACTIONS 6086, 1, [anon_sym_GT]), (STATE 2761, 1,
       [aux_sym_type_parameters_repeat1]), (STATE 2831, 2, [sym_comment,
       sym_documentation_comment])]),
     (135631, 9, [(ACTIONS 3, 1, [anon_sym_SLASH_SLASH]), (ACTIONS 5, 1,
       [anon_sym_SLASH_STAR]), (ACTIONS 7, 1, [anon_sym_SLASH_SLASH_SLASH]), (ACTIONS 9, 1,
       [sym__block_comment]), (ACTIONS 11, 1, [sym__documentation_block_comment]), (ACTIONS 6088,
       1, [anon_sym_COMMA]), (ACTIONS 6090, 1, [anon_sym_RPAREN]), (STATE 2812, 1,
       [aux_sym_parameter_type_list_repeat1]), (STATE 2832, 2, [sym_comment,
       sym_documentation_comment])]),
     (135660, 9, [(ACTIONS 3, 1, [anon_sym_SLASH_SLASH]), (ACTIONS 5, 1,
       [anon_sym_SLASH_STAR]), (ACTIONS 7, 1, [anon_sym_SLASH_SLASH_SLASH]), (ACTIONS 9, 1,
       [sym__block_comment]), (ACTIONS 11, 1, [sym__documentation_block_comment]), (ACTIONS 5754,
       1, [anon_sym_COMMA]), (ACTIONS 6092, 1, [anon_sym_GT]), (STATE 2813, 1,
       [aux_sym_type_arguments_repeat1]), (STATE 2833, 2, [sym_comment,
       sym_documentation_comment])]),
     (135689, 7, [(ACTIONS 3, 1, [anon_sym_SLASH_SLASH]), (ACTIONS 5, 1,
       [anon_sym_SLASH_STAR]), (ACTIONS 7, 1, [anon_sym_SLASH_SLASH_SLASH]), (ACTIONS 9, 1,
       [sym__block_comment]), (ACTIONS 11, 1, [sym__documentation_block_comment]), (STATE 2834,
       2, [sym_comment, sym_documentation_comment]), (ACTIONS 6094, 3, [anon_sym_LPAREN,
       anon_sym_LT, sym_identifier])]),
     (135714, 9, [(ACTIONS 3, 1, [anon_sym_SLASH_SLASH]), (ACTIONS 5, 1,
       [anon_sym_SLASH_STAR]), (ACTIONS 7, 1, [anon_sym_SLASH_SLASH_SLASH]), (ACTIONS 9, 1,
       [sym__block_comment]), (ACTIONS 11, 1, [sym__documentation_block_comment]), (ACTIONS 6096,
       1, [anon_sym_COMMA]), (ACTIONS 6098, 1, [anon_sym_RBRACK]), (STATE 2748, 1,
       [aux_sym_list_literal_repeat1]), (STATE 2835, 2, [sym_comment,
       sym_documentation_comment])]),
     (135743, 9, [(ACTIONS 3, 1, [anon_sym_SLASH_SLASH]), (ACTIONS 5, 1,
       [anon_sym_SLASH_STAR]), (ACTIONS 7, 1, [anon_sym_SLASH_SLASH_SLASH]), (ACTIONS 9, 1,
       [sym__block_comment]), (ACTIONS 11, 1, [sym__documentation_block_comment]), (ACTIONS 5805,
       1, [sym_identifier]), (STATE 2991, 1, [sym_initialized_identifier]), (STATE 3178, 1,
       [sym_initialized_identifier_list]), (STATE 2836, 2, [sym_comment,
       sym_documentation_comment])]),
     (135772, 9, [(ACTIONS 3, 1, [anon_sym_SLASH_SLASH]), (ACTIONS 5, 1,
       [anon_sym_SLASH_STAR]), (ACTIONS 7, 1, [anon_sym_SLASH_SLASH_SLASH]), (ACTIONS 9, 1,
       [sym__block_comment]), (ACTIONS 11, 1, [sym__documentation_block_comment]), (ACTIONS 6098,
       1, [anon_sym_RBRACE]), (ACTIONS 6100, 1, [anon_sym_COMMA]), (STATE 2747, 1,
       [aux_sym_list_literal_repeat1]), (STATE 2837, 2, [sym_comment,
       sym_documentation_comment])])]"

lemma small_run_881: "small_run 2831 135602 ts_small_parse_table_881 2838 135801"
  by (simp add: small_simps ts_small_parse_table_881_def)

definition ts_small_parse_table_882 :: "small_group list" where
  "ts_small_parse_table_882 = [
     (135801, 7, [(ACTIONS 3, 1, [anon_sym_SLASH_SLASH]), (ACTIONS 5, 1,
       [anon_sym_SLASH_STAR]), (ACTIONS 7, 1, [anon_sym_SLASH_SLASH_SLASH]), (ACTIONS 9, 1,
       [sym__block_comment]), (ACTIONS 11, 1, [sym__documentation_block_comment]), (STATE 2838,
       2, [sym_comment, sym_documentation_comment]), (ACTIONS 5606, 3, [anon_sym_RBRACE,
       anon_sym_COMMA, anon_sym_RBRACK])]),
     (135826, 9, [(ACTIONS 3, 1, [anon_sym_SLASH_SLASH]), (ACTIONS 5, 1,
       [anon_sym_SLASH_STAR]), (ACTIONS 7, 1, [anon_sym_SLASH_SLASH_SLASH]), (ACTIONS 9, 1,
       [sym__block_comment]), (ACTIONS 11, 1, [sym__documentation_block_comment]), (ACTIONS 596,
       1, [anon_sym_RBRACE]), (ACTIONS 6102, 1, [anon_sym_COMMA]), (STATE 2605, 1,
       [aux_sym_list_literal_repeat1]), (STATE 2839, 2, [sym_comment,
       sym_documentation_comment])]),
     (135855, 9, [(ACTIONS 3, 1, [anon_sym_SLASH_SLASH]), (ACTIONS 5, 1,
       [anon_sym_SLASH_STAR]), (ACTIONS 7, 1, [anon_sym_SLASH_SLASH_SLASH]), (ACTIONS 9, 1,
       [sym__block_comment]), (ACTIONS 11, 1, [sym__documentation_block_comment]), (ACTIONS 5143,
       1, [anon_sym_SEMI]), (ACTIONS 5331, 1, [anon_sym_native]), (STATE 2520, 1, [sym__native]),
       (STATE 2840, 2, [sym_comment, sym_documentation_comment])]),
     (135884, 9, [(ACTIONS 3, 1, [anon_sym_SLASH_SLASH]), (ACTIONS 5, 1,
       [anon_sym_SLASH_STAR]), (ACTIONS 7, 1, [anon_sym_SLASH_SLASH_SLASH]), (ACTIONS 9, 1,
       [sym__block_comment]), (ACTIONS 11, 1, [sym__documentation_block_comment]), (ACTIONS 5153,
       1, [anon_sym_SEMI]), (ACTIONS 5331, 1, [anon_sym_native]), (STATE 2516, 1, [sym__native]),
       (STATE 2841, 2, [sym_comment, sym_documentation_comment])]),
     (135913, 9, [(ACTIONS 3, 1, [anon_sym_SLASH_SLASH]), (ACTIONS 5, 1,
       [anon_sym_SLASH_STAR]), (ACTIONS 7, 1, [anon_sym_SLASH_SLASH_SLASH]), (ACTIONS 9, 1,
       [sym__block_comment]), (ACTIONS 11, 1, [sym__documentation_block_comment]), (ACTIONS 5754,
       1, [anon_sym_COMMA]), (ACTIONS 6104, 1, [anon_sym_GT]), (STATE 2885, 1,
       [aux_sym_type_arguments_repeat1]), (STATE 2842, 2, [sym_comment,
       sym_documentation_comment])]),
     (135942, 9, [(ACTIONS 3, 1, [anon_sym_SLASH_SLASH]), (ACTIONS 5, 1,
       [anon_sym_SLASH_STAR]), (ACTIONS 7, 1, [anon_sym_SLASH_SLASH_SLASH]), (ACTIONS 9, 1,
       [sym__block_comment]), (ACTIONS 11, 1, [sym__documentation_block_comment]), (ACTIONS 6106,
       1, [anon_sym_COMMA]), (ACTIONS 6108, 1, [anon_sym_RPAREN]), (STATE 2887, 1,
       [aux_sym_parameter_type_list_repeat1]), (STATE 2843, 2, [sym_comment,
       sym_documentation_comment])]),
     (135971, 9, [(ACTIONS 3, 1, [anon_sym_SLASH_SLASH]), (ACTIONS 5, 1,
       [anon_sym_SLASH_STAR]), (ACTIONS 7, 1, [anon_sym_SLASH_SLASH_SLASH]), (ACTIONS 9, 1,
       [sym__block_comment]), (ACTIONS 11, 1, [sym__documentation_block_comment]), (ACTIONS 4274,
       1, [anon_sym_RBRACE]), (ACTIONS 6110, 1, [anon_sym_COMMA]), (STATE 2850, 1,
       [aux_sym_record_type_repeat2]), (STATE 2844, 2, [sym_comment,
       sym_documentation_comment])])]"

lemma small_run_882: "small_run 2838 135801 ts_small_parse_table_882 2845 136000"
  by (simp add: small_simps ts_small_parse_table_882_def)

definition ts_small_parse_table_883 :: "small_group list" where
  "ts_small_parse_table_883 = [
     (136000, 9, [(ACTIONS 3, 1, [anon_sym_SLASH_SLASH]), (ACTIONS 5, 1,
       [anon_sym_SLASH_STAR]), (ACTIONS 7, 1, [anon_sym_SLASH_SLASH_SLASH]), (ACTIONS 9, 1,
       [sym__block_comment]), (ACTIONS 11, 1, [sym__documentation_block_comment]), (ACTIONS 5212,
       1, [anon_sym_SEMI]), (ACTIONS 5331, 1, [anon_sym_native]), (STATE 2459, 1, [sym__native]),
       (STATE 2845, 2, [sym_comment, sym_documentation_comment])]),
     (136029, 9, [(ACTIONS 3, 1, [anon_sym_SLASH_SLASH]), (ACTIONS 5, 1,
       [anon_sym_SLASH_STAR]), (ACTIONS 7, 1, [anon_sym_SLASH_SLASH_SLASH]), (ACTIONS 9, 1,
       [sym__block_comment]), (ACTIONS 11, 1, [sym__documentation_block_comment]), (ACTIONS 552,
       1, [anon_sym_RBRACE]), (ACTIONS 6112, 1, [anon_sym_COMMA]), (STATE 2605, 1,
       [aux_sym_list_literal_repeat1]), (STATE 2846, 2, [sym_comment,
       sym_documentation_comment])]),
     (136058, 9, [(ACTIONS 3, 1, [anon_sym_SLASH_SLASH]), (ACTIONS 5, 1,
       [anon_sym_SLASH_STAR]), (ACTIONS 7, 1, [anon_sym_SLASH_SLASH_SLASH]), (ACTIONS 9, 1,
       [sym__block_comment]), (ACTIONS 11, 1, [sym__documentation_block_comment]), (ACTIONS 5552,
       1, [anon_sym_COMMA]), (ACTIONS 6114, 1, [anon_sym_SEMI]), (STATE 2707, 1,
       [aux_sym_initialized_identifier_list_repeat1]), (STATE 2847, 2, [sym_comment,
       sym_documentation_comment])]),
     (136087, 9, [(ACTIONS 3, 1, [anon_sym_SLASH_SLASH]), (ACTIONS 5, 1,
       [anon_sym_SLASH_STAR]), (ACTIONS 7, 1, [anon_sym_SLASH_SLASH_SLASH]), (ACTIONS 9, 1,
       [sym__block_comment]), (ACTIONS 11, 1, [sym__documentation_block_comment]), (ACTIONS 646,
       1, [anon_sym_RBRACE]), (ACTIONS 6116, 1, [anon_sym_COMMA]), (STATE 2808, 1,
       [aux_sym_map_pattern_repeat1]), (STATE 2848, 2, [sym_comment,
       sym_documentation_comment])]),
     (136116, 9, [(ACTIONS 3, 1, [anon_sym_SLASH_SLASH]), (ACTIONS 5, 1,
       [anon_sym_SLASH_STAR]), (ACTIONS 7, 1, [anon_sym_SLASH_SLASH_SLASH]), (ACTIONS 9, 1,
       [sym__block_comment]), (ACTIONS 11, 1, [sym__documentation_block_comment]), (ACTIONS 5793,
       1, [anon_sym_COMMA]), (ACTIONS 6118, 1, [anon_sym_GT]), (STATE 2831, 1,
       [aux_sym_type_parameters_repeat1]), (STATE 2849, 2, [sym_comment,
       sym_documentation_comment])]),
     (136145, 9, [(ACTIONS 3, 1, [anon_sym_SLASH_SLASH]), (ACTIONS 5, 1,
       [anon_sym_SLASH_STAR]), (ACTIONS 7, 1, [anon_sym_SLASH_SLASH_SLASH]), (ACTIONS 9, 1,
       [sym__block_comment]), (ACTIONS 11, 1, [sym__documentation_block_comment]), (ACTIONS 4266,
       1, [anon_sym_RBRACE]), (ACTIONS 6120, 1, [anon_sym_COMMA]), (STATE 2734, 1,
       [aux_sym_record_type_repeat2]), (STATE 2850, 2, [sym_comment,
       sym_documentation_comment])]),
     (136174, 9, [(ACTIONS 3, 1, [anon_sym_SLASH_SLASH]), (ACTIONS 5, 1,
       [anon_sym_SLASH_STAR]), (ACTIONS 7, 1, [anon_sym_SLASH_SLASH_SLASH]), (ACTIONS 9, 1,
       [sym__block_comment]), (ACTIONS 11, 1, [sym__documentation_block_comment]), (ACTIONS 5793,
       1, [anon_sym_COMMA]), (ACTIONS 6122, 1, [anon_sym_GT]), (STATE 2761, 1,
       [aux_sym_type_parameters_repeat1]), (STATE 2851, 2, [sym_comment,
       sym_documentation_comment])])]"

lemma small_run_883: "small_run 2845 136000 ts_small_parse_table_883 2852 136203"
  by (simp add: small_simps ts_small_parse_table_883_def)

definition ts_small_parse_table_884 :: "small_group list" where
  "ts_small_parse_table_884 = [
     (136203, 9, [(ACTIONS 3, 1, [anon_sym_SLASH_SLASH]), (ACTIONS 5, 1,
       [anon_sym_SLASH_STAR]), (ACTIONS 7, 1, [anon_sym_SLASH_SLASH_SLASH]), (ACTIONS 9, 1,
       [sym__block_comment]), (ACTIONS 11, 1, [sym__documentation_block_comment]), (ACTIONS 618,
       1, [anon_sym_RBRACE]), (ACTIONS 6124, 1, [anon_sym_COMMA]), (STATE 2891, 1,
       [aux_sym_list_literal_repeat1]), (STATE 2852, 2, [sym_comment,
       sym_documentation_comment])]),
     (136232, 9, [(ACTIONS 3, 1, [anon_sym_SLASH_SLASH]), (ACTIONS 5, 1,
       [anon_sym_SLASH_STAR]), (ACTIONS 7, 1, [anon_sym_SLASH_SLASH_SLASH]), (ACTIONS 9, 1,
       [sym__block_comment]), (ACTIONS 11, 1, [sym__documentation_block_comment]), (ACTIONS 616,
       1, [anon_sym_RBRACK]), (ACTIONS 6126, 1, [anon_sym_COMMA]), (STATE 2893, 1,
       [aux_sym_list_literal_repeat1]), (STATE 2853, 2, [sym_comment,
       sym_documentation_comment])]),
     (136261, 9, [(ACTIONS 3, 1, [anon_sym_SLASH_SLASH]), (ACTIONS 5, 1,
       [anon_sym_SLASH_STAR]), (ACTIONS 7, 1, [anon_sym_SLASH_SLASH_SLASH]), (ACTIONS 9, 1,
       [sym__block_comment]), (ACTIONS 11, 1, [sym__documentation_block_comment]), (ACTIONS 508,
       1, [anon_sym_RBRACE]), (ACTIONS 6128, 1, [anon_sym_COMMA]), (STATE 2605, 1,
       [aux_sym_list_literal_repeat1]), (STATE 2854, 2, [sym_comment,
       sym_documentation_comment])]),
     (136290, 9, [(ACTIONS 3, 1, [anon_sym_SLASH_SLASH]), (ACTIONS 5, 1,
       [anon_sym_SLASH_STAR]), (ACTIONS 7, 1, [anon_sym_SLASH_SLASH_SLASH]), (ACTIONS 9, 1,
       [sym__block_comment]), (ACTIONS 11, 1, [sym__documentation_block_comment]), (ACTIONS 508,
       1, [anon_sym_RBRACK]), (ACTIONS 6130, 1, [anon_sym_COMMA]), (STATE 2605, 1,
       [aux_sym_list_literal_repeat1]), (STATE 2855, 2, [sym_comment,
       sym_documentation_comment])]),
     (136319, 9, [(ACTIONS 3, 1, [anon_sym_SLASH_SLASH]), (ACTIONS 5, 1,
       [anon_sym_SLASH_STAR]), (ACTIONS 7, 1, [anon_sym_SLASH_SLASH_SLASH]), (ACTIONS 9, 1,
       [sym__block_comment]), (ACTIONS 11, 1, [sym__documentation_block_comment]), (ACTIONS 4266,
       1, [anon_sym_RBRACE]), (ACTIONS 6120, 1, [anon_sym_COMMA]), (STATE 2865, 1,
       [aux_sym_record_type_repeat2]), (STATE 2856, 2, [sym_comment,
       sym_documentation_comment])]),
     (136348, 9, [(ACTIONS 3, 1, [anon_sym_SLASH_SLASH]), (ACTIONS 5, 1,
       [anon_sym_SLASH_STAR]), (ACTIONS 7, 1, [anon_sym_SLASH_SLASH_SLASH]), (ACTIONS 9, 1,
       [sym__block_comment]), (ACTIONS 11, 1, [sym__documentation_block_comment]), (ACTIONS 5509,
       1, [anon_sym_COMMA]), (ACTIONS 6132, 1, [anon_sym_RPAREN]), (STATE 2793, 1,
       [aux_sym__for_loop_parts_repeat2]), (STATE 2857, 2, [sym_comment,
       sym_documentation_comment])]),
     (136377, 9, [(ACTIONS 3, 1, [anon_sym_SLASH_SLASH]), (ACTIONS 5, 1,
       [anon_sym_SLASH_STAR]), (ACTIONS 7, 1, [anon_sym_SLASH_SLASH_SLASH]), (ACTIONS 9, 1,
       [sym__block_comment]), (ACTIONS 11, 1, [sym__documentation_block_comment]), (ACTIONS 5509,
       1, [anon_sym_COMMA]), (ACTIONS 6134, 1, [anon_sym_RPAREN]), (STATE 2880, 1,
       [aux_sym__for_loop_parts_repeat2]), (STATE 2858, 2, [sym_comment,
       sym_documentation_comment])])]"

lemma small_run_884: "small_run 2852 136203 ts_small_parse_table_884 2859 136406"
  by (simp add: small_simps ts_small_parse_table_884_def)

definition ts_small_parse_table_885 :: "small_group list" where
  "ts_small_parse_table_885 = [
     (136406, 9, [(ACTIONS 3, 1, [anon_sym_SLASH_SLASH]), (ACTIONS 5, 1,
       [anon_sym_SLASH_STAR]), (ACTIONS 7, 1, [anon_sym_SLASH_SLASH_SLASH]), (ACTIONS 9, 1,
       [sym__block_comment]), (ACTIONS 11, 1, [sym__documentation_block_comment]), (ACTIONS 3161,
       1, [anon_sym_LT]), (ACTIONS 4424, 1, [anon_sym_DOT]), (STATE 3454, 1,
       [sym_type_arguments]), (STATE 2859, 2, [sym_comment, sym_documentation_comment])]),
     (136435, 9, [(ACTIONS 3, 1, [anon_sym_SLASH_SLASH]), (ACTIONS 5, 1,
       [anon_sym_SLASH_STAR]), (ACTIONS 7, 1, [anon_sym_SLASH_SLASH_SLASH]), (ACTIONS 9, 1,
       [sym__block_comment]), (ACTIONS 11, 1, [sym__documentation_block_comment]), (ACTIONS 524,
       1, [anon_sym_RBRACK]), (ACTIONS 6136, 1, [anon_sym_COMMA]), (STATE 2746, 1,
       [aux_sym_list_literal_repeat1]), (STATE 2860, 2, [sym_comment,
       sym_documentation_comment])]),
     (136464, 9, [(ACTIONS 3, 1, [anon_sym_SLASH_SLASH]), (ACTIONS 5, 1,
       [anon_sym_SLASH_STAR]), (ACTIONS 7, 1, [anon_sym_SLASH_SLASH_SLASH]), (ACTIONS 9, 1,
       [sym__block_comment]), (ACTIONS 11, 1, [sym__documentation_block_comment]), (ACTIONS 5509,
       1, [anon_sym_COMMA]), (ACTIONS 6138, 1, [anon_sym_RPAREN]), (STATE 2793, 1,
       [aux_sym__for_loop_parts_repeat2]), (STATE 2861, 2, [sym_comment,
       sym_documentation_comment])]),
     (136493, 9, [(ACTIONS 3, 1, [anon_sym_SLASH_SLASH]), (ACTIONS 5, 1,
       [anon_sym_SLASH_STAR]), (ACTIONS 7, 1, [anon_sym_SLASH_SLASH_SLASH]), (ACTIONS 9, 1,
       [sym__block_comment]), (ACTIONS 11, 1, [sym__documentation_block_comment]), (ACTIONS 556,
       1, [anon_sym_RBRACK]), (ACTIONS 6140, 1, [anon_sym_COMMA]), (STATE 2605, 1,
       [aux_sym_list_literal_repeat1]), (STATE 2862, 2, [sym_comment,
       sym_documentation_comment])]),
     (136522, 9, [(ACTIONS 3, 1, [anon_sym_SLASH_SLASH]), (ACTIONS 5, 1,
       [anon_sym_SLASH_STAR]), (ACTIONS 7, 1, [anon_sym_SLASH_SLASH_SLASH]), (ACTIONS 9, 1,
       [sym__block_comment]), (ACTIONS 11, 1, [sym__documentation_block_comment]), (ACTIONS 991,
       1, [anon_sym_RBRACK]), (ACTIONS 6142, 1, [anon_sym_COMMA]), (STATE 2753, 1,
       [aux_sym_list_pattern_repeat1]), (STATE 2863, 2, [sym_comment,
       sym_documentation_comment])]),
     (136551, 9, [(ACTIONS 3, 1, [anon_sym_SLASH_SLASH]), (ACTIONS 9, 1, [sym__block_comment]),
       (ACTIONS 11, 1, [sym__documentation_block_comment]), (ACTIONS 5165, 1,
       [anon_sym_SLASH_STAR]), (ACTIONS 5167, 1, [anon_sym_SLASH_SLASH_SLASH]), (ACTIONS 6144, 1,
       [anon_sym_LBRACE]), (ACTIONS 6146, 1, [aux_sym__sub_string_test_token1]), (ACTIONS 6148,
       1, [sym_identifier_dollar_escaped]), (STATE 2864, 2, [sym_comment,
       sym_documentation_comment])]),
     (136580, 9, [(ACTIONS 3, 1, [anon_sym_SLASH_SLASH]), (ACTIONS 5, 1,
       [anon_sym_SLASH_STAR]), (ACTIONS 7, 1, [anon_sym_SLASH_SLASH_SLASH]), (ACTIONS 9, 1,
       [sym__block_comment]), (ACTIONS 11, 1, [sym__documentation_block_comment]), (ACTIONS 4264,
       1, [anon_sym_RBRACE]), (ACTIONS 6150, 1, [anon_sym_COMMA]), (STATE 2734, 1,
       [aux_sym_record_type_repeat2]), (STATE 2865, 2, [sym_comment,
       sym_documentation_comment])])]"

lemma small_run_885: "small_run 2859 136406 ts_small_parse_table_885 2866 136609"
  by (simp add: small_simps ts_small_parse_table_885_def)

definition ts_small_parse_table_886 :: "small_group list" where
  "ts_small_parse_table_886 = [
     (136609, 9, [(ACTIONS 3, 1, [anon_sym_SLASH_SLASH]), (ACTIONS 5, 1,
       [anon_sym_SLASH_STAR]), (ACTIONS 7, 1, [anon_sym_SLASH_SLASH_SLASH]), (ACTIONS 9, 1,
       [sym__block_comment]), (ACTIONS 11, 1, [sym__documentation_block_comment]), (ACTIONS 5509,
       1, [anon_sym_COMMA]), (ACTIONS 6152, 1, [anon_sym_RPAREN]), (STATE 2793, 1,
       [aux_sym__for_loop_parts_repeat2]), (STATE 2866, 2, [sym_comment,
       sym_documentation_comment])]),
     (136638, 9, [(ACTIONS 3, 1, [anon_sym_SLASH_SLASH]), (ACTIONS 5, 1,
       [anon_sym_SLASH_STAR]), (ACTIONS 7, 1, [anon_sym_SLASH_SLASH_SLASH]), (ACTIONS 9, 1,
       [sym__block_comment]), (ACTIONS 11, 1, [sym__documentation_block_comment]), (ACTIONS 522,
       1, [anon_sym_RBRACE]), (ACTIONS 6154, 1, [anon_sym_COMMA]), (STATE 2740, 1,
       [aux_sym_list_literal_repeat1]), (STATE 2867, 2, [sym_comment,
       sym_documentation_comment])]),
     (136667, 8, [(ACTIONS 3, 1, [anon_sym_SLASH_SLASH]), (ACTIONS 5, 1,
       [anon_sym_SLASH_STAR]), (ACTIONS 7, 1, [anon_sym_SLASH_SLASH_SLASH]), (ACTIONS 9, 1,
       [sym__block_comment]), (ACTIONS 11, 1, [sym__documentation_block_comment]), (ACTIONS 6156,
       1, [sym_identifier]), (ACTIONS 4404, 2, [anon_sym_this, anon_sym_super]), (STATE 2868, 2,
       [sym_comment, sym_documentation_comment])]),
     (136694, 9, [(ACTIONS 3, 1, [anon_sym_SLASH_SLASH]), (ACTIONS 5, 1,
       [anon_sym_SLASH_STAR]), (ACTIONS 7, 1, [anon_sym_SLASH_SLASH_SLASH]), (ACTIONS 9, 1,
       [sym__block_comment]), (ACTIONS 11, 1, [sym__documentation_block_comment]), (ACTIONS 524,
       1, [anon_sym_RBRACK]), (ACTIONS 6136, 1, [anon_sym_COMMA]), (STATE 2605, 1,
       [aux_sym_list_literal_repeat1]), (STATE 2869, 2, [sym_comment,
       sym_documentation_comment])]),
     (136723, 9, [(ACTIONS 3, 1, [anon_sym_SLASH_SLASH]), (ACTIONS 5, 1,
       [anon_sym_SLASH_STAR]), (ACTIONS 7, 1, [anon_sym_SLASH_SLASH_SLASH]), (ACTIONS 9, 1,
       [sym__block_comment]), (ACTIONS 11, 1, [sym__documentation_block_comment]), (ACTIONS 4172,
       1, [anon_sym_RPAREN]), (ACTIONS 6159, 1, [anon_sym_COMMA]), (STATE 2922, 1,
       [aux_sym_record_type_repeat1]), (STATE 2870, 2, [sym_comment,
       sym_documentation_comment])]),
     (136752, 9, [(ACTIONS 3, 1, [anon_sym_SLASH_SLASH]), (ACTIONS 5, 1,
       [anon_sym_SLASH_STAR]), (ACTIONS 7, 1, [anon_sym_SLASH_SLASH_SLASH]), (ACTIONS 9, 1,
       [sym__block_comment]), (ACTIONS 11, 1, [sym__documentation_block_comment]), (ACTIONS 6161,
       1, [anon_sym_COMMA]), (ACTIONS 6163, 1, [anon_sym_RPAREN]), (STATE 2694, 1,
       [aux_sym__record_literal_no_const_repeat1]), (STATE 2871, 2, [sym_comment,
       sym_documentation_comment])]),
     (136781, 9, [(ACTIONS 3, 1, [anon_sym_SLASH_SLASH]), (ACTIONS 5, 1,
       [anon_sym_SLASH_STAR]), (ACTIONS 7, 1, [anon_sym_SLASH_SLASH_SLASH]), (ACTIONS 9, 1,
       [sym__block_comment]), (ACTIONS 11, 1, [sym__documentation_block_comment]), (ACTIONS 6165,
       1, [anon_sym_RBRACE]), (ACTIONS 6167, 1, [anon_sym_COMMA]), (STATE 2875, 1,
       [aux_sym_record_type_repeat2]), (STATE 2872, 2, [sym_comment,
       sym_documentation_comment])])]"

lemma small_run_886: "small_run 2866 136609 ts_small_parse_table_886 2873 136810"
  by (simp add: small_simps ts_small_parse_table_886_def)

definition ts_small_parse_table_887 :: "small_group list" where
  "ts_small_parse_table_887 = [
     (136810, 8, [(ACTIONS 3, 1, [anon_sym_SLASH_SLASH]), (ACTIONS 5, 1,
       [anon_sym_SLASH_STAR]), (ACTIONS 7, 1, [anon_sym_SLASH_SLASH_SLASH]), (ACTIONS 9, 1,
       [sym__block_comment]), (ACTIONS 11, 1, [sym__documentation_block_comment]), (ACTIONS 6169,
       1, [anon_sym_RBRACE]), (ACTIONS 6171, 1, [anon_sym_COMMA]), (STATE 2873, 3, [sym_comment,
       sym_documentation_comment, aux_sym_named_parameter_types_repeat1])]),
     (136837, 9, [(ACTIONS 3, 1, [anon_sym_SLASH_SLASH]), (ACTIONS 5, 1,
       [anon_sym_SLASH_STAR]), (ACTIONS 7, 1, [anon_sym_SLASH_SLASH_SLASH]), (ACTIONS 9, 1,
       [sym__block_comment]), (ACTIONS 11, 1, [sym__documentation_block_comment]), (ACTIONS 5509,
       1, [anon_sym_COMMA]), (ACTIONS 6174, 1, [anon_sym_RPAREN]), (STATE 2793, 1,
       [aux_sym__for_loop_parts_repeat2]), (STATE 2874, 2, [sym_comment,
       sym_documentation_comment])]),
     (136866, 9, [(ACTIONS 3, 1, [anon_sym_SLASH_SLASH]), (ACTIONS 5, 1,
       [anon_sym_SLASH_STAR]), (ACTIONS 7, 1, [anon_sym_SLASH_SLASH_SLASH]), (ACTIONS 9, 1,
       [sym__block_comment]), (ACTIONS 11, 1, [sym__documentation_block_comment]), (ACTIONS 4252,
       1, [anon_sym_RBRACE]), (ACTIONS 6176, 1, [anon_sym_COMMA]), (STATE 2734, 1,
       [aux_sym_record_type_repeat2]), (STATE 2875, 2, [sym_comment,
       sym_documentation_comment])]),
     (136895, 9, [(ACTIONS 3, 1, [anon_sym_SLASH_SLASH]), (ACTIONS 9, 1, [sym__block_comment]),
       (ACTIONS 11, 1, [sym__documentation_block_comment]), (ACTIONS 5165, 1,
       [anon_sym_SLASH_STAR]), (ACTIONS 5167, 1, [anon_sym_SLASH_SLASH_SLASH]), (ACTIONS 6178, 1,
       [anon_sym_LBRACE]), (ACTIONS 6180, 1, [aux_sym__sub_string_test_token1]), (ACTIONS 6182,
       1, [sym_identifier_dollar_escaped]), (STATE 2876, 2, [sym_comment,
       sym_documentation_comment])]),
     (136924, 9, [(ACTIONS 3, 1, [anon_sym_SLASH_SLASH]), (ACTIONS 5, 1,
       [anon_sym_SLASH_STAR]), (ACTIONS 7, 1, [anon_sym_SLASH_SLASH_SLASH]), (ACTIONS 9, 1,
       [sym__block_comment]), (ACTIONS 11, 1, [sym__documentation_block_comment]), (ACTIONS 1009,
       1, [anon_sym_RPAREN]), (ACTIONS 5892, 1, [anon_sym_COMMA]), (STATE 2686, 1,
       [aux_sym_record_pattern_repeat1]), (STATE 2877, 2, [sym_comment,
       sym_documentation_comment])]),
     (136953, 9, [(ACTIONS 3, 1, [anon_sym_SLASH_SLASH]), (ACTIONS 5, 1,
       [anon_sym_SLASH_STAR]), (ACTIONS 7, 1, [anon_sym_SLASH_SLASH_SLASH]), (ACTIONS 9, 1,
       [sym__block_comment]), (ACTIONS 11, 1, [sym__documentation_block_comment]), (ACTIONS 6184,
       1, [anon_sym_COMMA]), (ACTIONS 6186, 1, [anon_sym_RPAREN]), (STATE 2870, 1,
       [aux_sym_record_type_repeat1]), (STATE 2878, 2, [sym_comment,
       sym_documentation_comment])]),
     (136982, 9, [(ACTIONS 3, 1, [anon_sym_SLASH_SLASH]), (ACTIONS 5, 1,
       [anon_sym_SLASH_STAR]), (ACTIONS 7, 1, [anon_sym_SLASH_SLASH_SLASH]), (ACTIONS 9, 1,
       [sym__block_comment]), (ACTIONS 11, 1, [sym__documentation_block_comment]), (ACTIONS 5509,
       1, [anon_sym_COMMA]), (ACTIONS 6188, 1, [anon_sym_RPAREN]), (STATE 2889, 1,
       [aux_sym__for_loop_parts_repeat2]), (STATE 2879, 2, [sym_comment,
       sym_documentation_comment])])]"

lemma small_run_887: "small_run 2873 136810 ts_small_parse_table_887 2880 137011"
  by (simp add: small_simps ts_small_parse_table_887_def)

definition ts_small_parse_table_888 :: "small_group list" where
  "ts_small_parse_table_888 = [
     (137011, 9, [(ACTIONS 3, 1, [anon_sym_SLASH_SLASH]), (ACTIONS 5, 1,
       [anon_sym_SLASH_STAR]), (ACTIONS 7, 1, [anon_sym_SLASH_SLASH_SLASH]), (ACTIONS 9, 1,
       [sym__block_comment]), (ACTIONS 11, 1, [sym__documentation_block_comment]), (ACTIONS 5509,
       1, [anon_sym_COMMA]), (ACTIONS 6190, 1, [anon_sym_RPAREN]), (STATE 2793, 1,
       [aux_sym__for_loop_parts_repeat2]), (STATE 2880, 2, [sym_comment,
       sym_documentation_comment])]),
     (137040, 9, [(ACTIONS 3, 1, [anon_sym_SLASH_SLASH]), (ACTIONS 5, 1,
       [anon_sym_SLASH_STAR]), (ACTIONS 7, 1, [anon_sym_SLASH_SLASH_SLASH]), (ACTIONS 9, 1,
       [sym__block_comment]), (ACTIONS 11, 1, [sym__documentation_block_comment]), (ACTIONS 4833,
       1, [anon_sym_LBRACE]), (ACTIONS 6192, 1, [anon_sym_EQ_GT]), (STATE 2332, 1, [sym_block]),
       (STATE 2881, 2, [sym_comment, sym_documentation_comment])]),
     (137069, 9, [(ACTIONS 3, 1, [anon_sym_SLASH_SLASH]), (ACTIONS 5, 1,
       [anon_sym_SLASH_STAR]), (ACTIONS 7, 1, [anon_sym_SLASH_SLASH_SLASH]), (ACTIONS 9, 1,
       [sym__block_comment]), (ACTIONS 11, 1, [sym__documentation_block_comment]), (ACTIONS 542,
       1, [anon_sym_RBRACK]), (ACTIONS 6194, 1, [anon_sym_COMMA]), (STATE 2605, 1,
       [aux_sym_list_literal_repeat1]), (STATE 2882, 2, [sym_comment,
       sym_documentation_comment])]),
     (137098, 9, [(ACTIONS 3, 1, [anon_sym_SLASH_SLASH]), (ACTIONS 5, 1,
       [anon_sym_SLASH_STAR]), (ACTIONS 7, 1, [anon_sym_SLASH_SLASH_SLASH]), (ACTIONS 9, 1,
       [sym__block_comment]), (ACTIONS 11, 1, [sym__documentation_block_comment]), (ACTIONS 4194,
       1, [anon_sym_RBRACE]), (ACTIONS 6196, 1, [anon_sym_COMMA]), (STATE 2734, 1,
       [aux_sym_record_type_repeat2]), (STATE 2883, 2, [sym_comment,
       sym_documentation_comment])]),
     (137127, 9, [(ACTIONS 3, 1, [anon_sym_SLASH_SLASH]), (ACTIONS 5, 1,
       [anon_sym_SLASH_STAR]), (ACTIONS 7, 1, [anon_sym_SLASH_SLASH_SLASH]), (ACTIONS 9, 1,
       [sym__block_comment]), (ACTIONS 11, 1, [sym__documentation_block_comment]), (ACTIONS 5228,
       1, [anon_sym_SEMI]), (ACTIONS 5331, 1, [anon_sym_native]), (STATE 2508, 1, [sym__native]),
       (STATE 2884, 2, [sym_comment, sym_documentation_comment])]),
     (137156, 9, [(ACTIONS 3, 1, [anon_sym_SLASH_SLASH]), (ACTIONS 5, 1,
       [anon_sym_SLASH_STAR]), (ACTIONS 7, 1, [anon_sym_SLASH_SLASH_SLASH]), (ACTIONS 9, 1,
       [sym__block_comment]), (ACTIONS 11, 1, [sym__documentation_block_comment]), (ACTIONS 5754,
       1, [anon_sym_COMMA]), (ACTIONS 6198, 1, [anon_sym_GT]), (STATE 2989, 1,
       [aux_sym_type_arguments_repeat1]), (STATE 2885, 2, [sym_comment,
       sym_documentation_comment])]),
     (137185, 9, [(ACTIONS 3, 1, [anon_sym_SLASH_SLASH]), (ACTIONS 5, 1,
       [anon_sym_SLASH_STAR]), (ACTIONS 7, 1, [anon_sym_SLASH_SLASH_SLASH]), (ACTIONS 9, 1,
       [sym__block_comment]), (ACTIONS 11, 1, [sym__documentation_block_comment]), (ACTIONS 999,
       1, [anon_sym_RPAREN]), (ACTIONS 6200, 1, [anon_sym_COMMA]), (STATE 2682, 1,
       [aux_sym_record_pattern_repeat1]), (STATE 2886, 2, [sym_comment,
       sym_documentation_comment])])]"

lemma small_run_888: "small_run 2880 137011 ts_small_parse_table_888 2887 137214"
  by (simp add: small_simps ts_small_parse_table_888_def)

definition ts_small_parse_table_889 :: "small_group list" where
  "ts_small_parse_table_889 = [
     (137214, 9, [(ACTIONS 3, 1, [anon_sym_SLASH_SLASH]), (ACTIONS 5, 1,
       [anon_sym_SLASH_STAR]), (ACTIONS 7, 1, [anon_sym_SLASH_SLASH_SLASH]), (ACTIONS 9, 1,
       [sym__block_comment]), (ACTIONS 11, 1, [sym__documentation_block_comment]), (ACTIONS 3751,
       1, [anon_sym_RPAREN]), (ACTIONS 6202, 1, [anon_sym_COMMA]), (STATE 2630, 1,
       [aux_sym_parameter_type_list_repeat1]), (STATE 2887, 2, [sym_comment,
       sym_documentation_comment])]),
     (137243, 9, [(ACTIONS 3, 1, [anon_sym_SLASH_SLASH]), (ACTIONS 5, 1,
       [anon_sym_SLASH_STAR]), (ACTIONS 7, 1, [anon_sym_SLASH_SLASH_SLASH]), (ACTIONS 9, 1,
       [sym__block_comment]), (ACTIONS 11, 1, [sym__documentation_block_comment]), (ACTIONS 544,
       1, [anon_sym_RBRACE]), (ACTIONS 6204, 1, [anon_sym_COMMA]), (STATE 2605, 1,
       [aux_sym_list_literal_repeat1]), (STATE 2888, 2, [sym_comment,
       sym_documentation_comment])]),
     (137272, 9, [(ACTIONS 3, 1, [anon_sym_SLASH_SLASH]), (ACTIONS 5, 1,
       [anon_sym_SLASH_STAR]), (ACTIONS 7, 1, [anon_sym_SLASH_SLASH_SLASH]), (ACTIONS 9, 1,
       [sym__block_comment]), (ACTIONS 11, 1, [sym__documentation_block_comment]), (ACTIONS 5509,
       1, [anon_sym_COMMA]), (ACTIONS 6206, 1, [anon_sym_RPAREN]), (STATE 2793, 1,
       [aux_sym__for_loop_parts_repeat2]), (STATE 2889, 2, [sym_comment,
       sym_documentation_comment])]),
     (137301, 9, [(ACTIONS 3, 1, [anon_sym_SLASH_SLASH]), (ACTIONS 5, 1,
       [anon_sym_SLASH_STAR]), (ACTIONS 7, 1, [anon_sym_SLASH_SLASH_SLASH]), (ACTIONS 9, 1,
       [sym__block_comment]), (ACTIONS 11, 1, [sym__documentation_block_comment]), (ACTIONS 522,
       1, [anon_sym_RBRACE]), (ACTIONS 6154, 1, [anon_sym_COMMA]), (STATE 2605, 1,
       [aux_sym_list_literal_repeat1]), (STATE 2890, 2, [sym_comment,
       sym_documentation_comment])]),
     (137330, 9, [(ACTIONS 3, 1, [anon_sym_SLASH_SLASH]), (ACTIONS 5, 1,
       [anon_sym_SLASH_STAR]), (ACTIONS 7, 1, [anon_sym_SLASH_SLASH_SLASH]), (ACTIONS 9, 1,
       [sym__block_comment]), (ACTIONS 11, 1, [sym__documentation_block_comment]), (ACTIONS 610,
       1, [anon_sym_RBRACE]), (ACTIONS 6208, 1, [anon_sym_COMMA]), (STATE 2605, 1,
       [aux_sym_list_literal_repeat1]), (STATE 2891, 2, [sym_comment,
       sym_documentation_comment])]),
     (137359, 9, [(ACTIONS 3, 1, [anon_sym_SLASH_SLASH]), (ACTIONS 5, 1,
       [anon_sym_SLASH_STAR]), (ACTIONS 7, 1, [anon_sym_SLASH_SLASH_SLASH]), (ACTIONS 9, 1,
       [sym__block_comment]), (ACTIONS 11, 1, [sym__documentation_block_comment]), (ACTIONS 1005,
       1, [anon_sym_RBRACE]), (ACTIONS 6210, 1, [anon_sym_COMMA]), (STATE 2758, 1,
       [aux_sym_switch_expression_repeat1]), (STATE 2892, 2, [sym_comment,
       sym_documentation_comment])]),
     (137388, 9, [(ACTIONS 3, 1, [anon_sym_SLASH_SLASH]), (ACTIONS 5, 1,
       [anon_sym_SLASH_STAR]), (ACTIONS 7, 1, [anon_sym_SLASH_SLASH_SLASH]), (ACTIONS 9, 1,
       [sym__block_comment]), (ACTIONS 11, 1, [sym__documentation_block_comment]), (ACTIONS 606,
       1, [anon_sym_RBRACK]), (ACTIONS 6212, 1, [anon_sym_COMMA]), (STATE 2605, 1,
       [aux_sym_list_literal_repeat1]), (STATE 2893, 2, [sym_comment,
       sym_documentation_comment])])]"

lemma small_run_889: "small_run 2887 137214 ts_small_parse_table_889 2894 137417"
  by (simp add: small_simps ts_small_parse_table_889_def)

definition ts_small_parse_table_890 :: "small_group list" where
  "ts_small_parse_table_890 = [
     (137417, 9, [(ACTIONS 3, 1, [anon_sym_SLASH_SLASH]), (ACTIONS 5, 1,
       [anon_sym_SLASH_STAR]), (ACTIONS 7, 1, [anon_sym_SLASH_SLASH_SLASH]), (ACTIONS 9, 1,
       [sym__block_comment]), (ACTIONS 11, 1, [sym__documentation_block_comment]), (ACTIONS 6214,
       1, [anon_sym_COMMA]), (ACTIONS 6216, 1, [anon_sym_RPAREN]), (STATE 2694, 1,
       [aux_sym__record_literal_no_const_repeat1]), (STATE 2894, 2, [sym_comment,
       sym_documentation_comment])]),
     (137446, 9, [(ACTIONS 3, 1, [anon_sym_SLASH_SLASH]), (ACTIONS 5, 1,
       [anon_sym_SLASH_STAR]), (ACTIONS 7, 1, [anon_sym_SLASH_SLASH_SLASH]), (ACTIONS 9, 1,
       [sym__block_comment]), (ACTIONS 11, 1, [sym__documentation_block_comment]), (ACTIONS 3511,
       1, [anon_sym_LT]), (ACTIONS 6218, 1, [anon_sym_on]), (STATE 3294, 1,
       [sym_type_parameters]), (STATE 2895, 2, [sym_comment, sym_documentation_comment])]),
     (137475, 9, [(ACTIONS 3, 1, [anon_sym_SLASH_SLASH]), (ACTIONS 5, 1,
       [anon_sym_SLASH_STAR]), (ACTIONS 7, 1, [anon_sym_SLASH_SLASH_SLASH]), (ACTIONS 9, 1,
       [sym__block_comment]), (ACTIONS 11, 1, [sym__documentation_block_comment]), (ACTIONS 548,
       1, [anon_sym_RBRACK]), (ACTIONS 6220, 1, [anon_sym_COMMA]), (STATE 2882, 1,
       [aux_sym_list_literal_repeat1]), (STATE 2896, 2, [sym_comment,
       sym_documentation_comment])]),
     (137504, 9, [(ACTIONS 3, 1, [anon_sym_SLASH_SLASH]), (ACTIONS 5, 1,
       [anon_sym_SLASH_STAR]), (ACTIONS 7, 1, [anon_sym_SLASH_SLASH_SLASH]), (ACTIONS 9, 1,
       [sym__block_comment]), (ACTIONS 11, 1, [sym__documentation_block_comment]), (ACTIONS 550,
       1, [anon_sym_RBRACE]), (ACTIONS 6222, 1, [anon_sym_COMMA]), (STATE 2888, 1,
       [aux_sym_list_literal_repeat1]), (STATE 2897, 2, [sym_comment,
       sym_documentation_comment])]),
     (137533, 8, [(ACTIONS 3, 1, [anon_sym_SLASH_SLASH]), (ACTIONS 5, 1,
       [anon_sym_SLASH_STAR]), (ACTIONS 7, 1, [anon_sym_SLASH_SLASH_SLASH]), (ACTIONS 9, 1,
       [sym__block_comment]), (ACTIONS 11, 1, [sym__documentation_block_comment]), (ACTIONS 6224,
       1, [sym_identifier]), (ACTIONS 4413, 2, [anon_sym_this, anon_sym_super]), (STATE 2898, 2,
       [sym_comment, sym_documentation_comment])]),
     (137560, 9, [(ACTIONS 3, 1, [anon_sym_SLASH_SLASH]), (ACTIONS 5, 1,
       [anon_sym_SLASH_STAR]), (ACTIONS 7, 1, [anon_sym_SLASH_SLASH_SLASH]), (ACTIONS 9, 1,
       [sym__block_comment]), (ACTIONS 11, 1, [sym__documentation_block_comment]), (ACTIONS 548,
       1, [anon_sym_RBRACK]), (ACTIONS 6220, 1, [anon_sym_COMMA]), (STATE 2605, 1,
       [aux_sym_list_literal_repeat1]), (STATE 2899, 2, [sym_comment,
       sym_documentation_comment])]),
     (137589, 9, [(ACTIONS 3, 1, [anon_sym_SLASH_SLASH]), (ACTIONS 5, 1,
       [anon_sym_SLASH_STAR]), (ACTIONS 7, 1, [anon_sym_SLASH_SLASH_SLASH]), (ACTIONS 9, 1,
       [sym__block_comment]), (ACTIONS 11, 1, [sym__documentation_block_comment]), (ACTIONS 4164,
       1, [anon_sym_RPAREN]), (ACTIONS 6227, 1, [anon_sym_COMMA]), (STATE 2922, 1,
       [aux_sym_record_type_repeat1]), (STATE 2900, 2, [sym_comment,
       sym_documentation_comment])])]"

lemma small_run_890: "small_run 2894 137417 ts_small_parse_table_890 2901 137618"
  by (simp add: small_simps ts_small_parse_table_890_def)

definition ts_small_parse_table_891 :: "small_group list" where
  "ts_small_parse_table_891 = [
     (137618, 9, [(ACTIONS 3, 1, [anon_sym_SLASH_SLASH]), (ACTIONS 5, 1,
       [anon_sym_SLASH_STAR]), (ACTIONS 7, 1, [anon_sym_SLASH_SLASH_SLASH]), (ACTIONS 9, 1,
       [sym__block_comment]), (ACTIONS 11, 1, [sym__documentation_block_comment]), (ACTIONS 610,
       1, [anon_sym_RBRACE]), (ACTIONS 6208, 1, [anon_sym_COMMA]), (STATE 2927, 1,
       [aux_sym_list_literal_repeat1]), (STATE 2901, 2, [sym_comment,
       sym_documentation_comment])]),
     (137647, 9, [(ACTIONS 3, 1, [anon_sym_SLASH_SLASH]), (ACTIONS 5, 1,
       [anon_sym_SLASH_STAR]), (ACTIONS 7, 1, [anon_sym_SLASH_SLASH_SLASH]), (ACTIONS 9, 1,
       [sym__block_comment]), (ACTIONS 11, 1, [sym__documentation_block_comment]), (ACTIONS 606,
       1, [anon_sym_RBRACK]), (ACTIONS 6212, 1, [anon_sym_COMMA]), (STATE 2928, 1,
       [aux_sym_list_literal_repeat1]), (STATE 2902, 2, [sym_comment,
       sym_documentation_comment])]),
     (137676, 9, [(ACTIONS 3, 1, [anon_sym_SLASH_SLASH]), (ACTIONS 5, 1,
       [anon_sym_SLASH_STAR]), (ACTIONS 7, 1, [anon_sym_SLASH_SLASH_SLASH]), (ACTIONS 9, 1,
       [sym__block_comment]), (ACTIONS 11, 1, [sym__documentation_block_comment]), (ACTIONS 550,
       1, [anon_sym_RBRACE]), (ACTIONS 6222, 1, [anon_sym_COMMA]), (STATE 2605, 1,
       [aux_sym_list_literal_repeat1]), (STATE 2903, 2, [sym_comment,
       sym_documentation_comment])]),
     (137705, 9, [(ACTIONS 3, 1, [anon_sym_SLASH_SLASH]), (ACTIONS 5, 1,
       [anon_sym_SLASH_STAR]), (ACTIONS 7, 1, [anon_sym_SLASH_SLASH_SLASH]), (ACTIONS 9, 1,
       [sym__block_comment]), (ACTIONS 11, 1, [sym__documentation_block_comment]), (ACTIONS 6229,
       1, [anon_sym_RBRACE]), (ACTIONS 6231, 1, [anon_sym_COMMA]), (STATE 2892, 1,
       [aux_sym_switch_expression_repeat1]), (STATE 2904, 2, [sym_comment,
       sym_documentation_comment])]),
     (137734, 9, [(ACTIONS 3, 1, [anon_sym_SLASH_SLASH]), (ACTIONS 5, 1,
       [anon_sym_SLASH_STAR]), (ACTIONS 7, 1, [anon_sym_SLASH_SLASH_SLASH]), (ACTIONS 9, 1,
       [sym__block_comment]), (ACTIONS 11, 1, [sym__documentation_block_comment]), (ACTIONS 4246,
       1, [anon_sym_RBRACE]), (ACTIONS 6233, 1, [anon_sym_COMMA]), (STATE 2907, 1,
       [aux_sym_record_type_repeat2]), (STATE 2905, 2, [sym_comment,
       sym_documentation_comment])]),
     (137763, 9, [(ACTIONS 3, 1, [anon_sym_SLASH_SLASH]), (ACTIONS 5, 1,
       [anon_sym_SLASH_STAR]), (ACTIONS 7, 1, [anon_sym_SLASH_SLASH_SLASH]), (ACTIONS 9, 1,
       [sym__block_comment]), (ACTIONS 11, 1, [sym__documentation_block_comment]), (ACTIONS 6235,
       1, [sym_identifier]), (ACTIONS 6237, 1, [anon_sym_new]), (STATE 1157, 1,
       [sym__new_builtin]), (STATE 2906, 2, [sym_comment, sym_documentation_comment])]),
     (137792, 9, [(ACTIONS 3, 1, [anon_sym_SLASH_SLASH]), (ACTIONS 5, 1,
       [anon_sym_SLASH_STAR]), (ACTIONS 7, 1, [anon_sym_SLASH_SLASH_SLASH]), (ACTIONS 9, 1,
       [sym__block_comment]), (ACTIONS 11, 1, [sym__documentation_block_comment]), (ACTIONS 4244,
       1, [anon_sym_RBRACE]), (ACTIONS 6239, 1, [anon_sym_COMMA]), (STATE 2734, 1,
       [aux_sym_record_type_repeat2]), (STATE 2907, 2, [sym_comment,
       sym_documentation_comment])])]"

lemma small_run_891: "small_run 2901 137618 ts_small_parse_table_891 2908 137821"
  by (simp add: small_simps ts_small_parse_table_891_def)

definition ts_small_parse_table_892 :: "small_group list" where
  "ts_small_parse_table_892 = [
     (137821, 9, [(ACTIONS 3, 1, [anon_sym_SLASH_SLASH]), (ACTIONS 5, 1,
       [anon_sym_SLASH_STAR]), (ACTIONS 7, 1, [anon_sym_SLASH_SLASH_SLASH]), (ACTIONS 9, 1,
       [sym__block_comment]), (ACTIONS 11, 1, [sym__documentation_block_comment]), (ACTIONS 5831,
       1, [sym_identifier]), (STATE 2916, 1, [sym_static_final_declaration]), (STATE 3546, 1,
       [sym_static_final_declaration_list]), (STATE 2908, 2, [sym_comment,
       sym_documentation_comment])]),
     (137850, 9, [(ACTIONS 3, 1, [anon_sym_SLASH_SLASH]), (ACTIONS 5, 1,
       [anon_sym_SLASH_STAR]), (ACTIONS 7, 1, [anon_sym_SLASH_SLASH_SLASH]), (ACTIONS 9, 1,
       [sym__block_comment]), (ACTIONS 11, 1, [sym__documentation_block_comment]), (ACTIONS 506,
       1, [anon_sym_RBRACK]), (ACTIONS 6241, 1, [anon_sym_COMMA]), (STATE 2899, 1,
       [aux_sym_list_literal_repeat1]), (STATE 2909, 2, [sym_comment,
       sym_documentation_comment])]),
     (137879, 8, [(ACTIONS 3, 1, [anon_sym_SLASH_SLASH]), (ACTIONS 5, 1,
       [anon_sym_SLASH_STAR]), (ACTIONS 7, 1, [anon_sym_SLASH_SLASH_SLASH]), (ACTIONS 9, 1,
       [sym__block_comment]), (ACTIONS 11, 1, [sym__documentation_block_comment]), (ACTIONS 6243,
       1, [sym_identifier]), (ACTIONS 5069, 2, [anon_sym_COMMA, anon_sym_RPAREN]), (STATE 2910,
       2, [sym_comment, sym_documentation_comment])]),
     (137906, 9, [(ACTIONS 3, 1, [anon_sym_SLASH_SLASH]), (ACTIONS 5, 1,
       [anon_sym_SLASH_STAR]), (ACTIONS 7, 1, [anon_sym_SLASH_SLASH_SLASH]), (ACTIONS 9, 1,
       [sym__block_comment]), (ACTIONS 11, 1, [sym__documentation_block_comment]), (ACTIONS 554,
       1, [anon_sym_RBRACE]), (ACTIONS 6245, 1, [anon_sym_COMMA]), (STATE 2903, 1,
       [aux_sym_list_literal_repeat1]), (STATE 2911, 2, [sym_comment,
       sym_documentation_comment])]),
     (137935, 9, [(ACTIONS 3, 1, [anon_sym_SLASH_SLASH]), (ACTIONS 5, 1,
       [anon_sym_SLASH_STAR]), (ACTIONS 7, 1, [anon_sym_SLASH_SLASH_SLASH]), (ACTIONS 9, 1,
       [sym__block_comment]), (ACTIONS 11, 1, [sym__documentation_block_comment]), (ACTIONS 4244,
       1, [anon_sym_RBRACE]), (ACTIONS 6239, 1, [anon_sym_COMMA]), (STATE 2924, 1,
       [aux_sym_record_type_repeat2]), (STATE 2912, 2, [sym_comment,
       sym_documentation_comment])]),
     (137964, 9, [(ACTIONS 3, 1, [anon_sym_SLASH_SLASH]), (ACTIONS 5, 1,
       [anon_sym_SLASH_STAR]), (ACTIONS 7, 1, [anon_sym_SLASH_SLASH_SLASH]), (ACTIONS 9, 1,
       [sym__block_comment]), (ACTIONS 11, 1, [sym__documentation_block_comment]), (ACTIONS 6247,
       1, [anon_sym_COMMA]), (ACTIONS 6249, 1, [anon_sym_RPAREN]), (STATE 2694, 1,
       [aux_sym__record_literal_no_const_repeat1]), (STATE 2913, 2, [sym_comment,
       sym_documentation_comment])]),
     (137993, 9, [(ACTIONS 3, 1, [anon_sym_SLASH_SLASH]), (ACTIONS 5, 1,
       [anon_sym_SLASH_STAR]), (ACTIONS 7, 1, [anon_sym_SLASH_SLASH_SLASH]), (ACTIONS 9, 1,
       [sym__block_comment]), (ACTIONS 11, 1, [sym__documentation_block_comment]), (ACTIONS 6251,
       1, [sym_identifier]), (ACTIONS 6253, 1, [anon_sym_new]), (STATE 1298, 1,
       [sym__new_builtin]), (STATE 2914, 2, [sym_comment, sym_documentation_comment])])]"

lemma small_run_892: "small_run 2908 137821 ts_small_parse_table_892 2915 138022"
  by (simp add: small_simps ts_small_parse_table_892_def)

definition ts_small_parse_table_893 :: "small_group list" where
  "ts_small_parse_table_893 = [
     (138022, 9, [(ACTIONS 3, 1, [anon_sym_SLASH_SLASH]), (ACTIONS 5, 1,
       [anon_sym_SLASH_STAR]), (ACTIONS 7, 1, [anon_sym_SLASH_SLASH_SLASH]), (ACTIONS 9, 1,
       [sym__block_comment]), (ACTIONS 11, 1, [sym__documentation_block_comment]), (ACTIONS 506,
       1, [anon_sym_RBRACK]), (ACTIONS 6241, 1, [anon_sym_COMMA]), (STATE 2605, 1,
       [aux_sym_list_literal_repeat1]), (STATE 2915, 2, [sym_comment,
       sym_documentation_comment])]),
     (138051, 9, [(ACTIONS 3, 1, [anon_sym_SLASH_SLASH]), (ACTIONS 5, 1,
       [anon_sym_SLASH_STAR]), (ACTIONS 7, 1, [anon_sym_SLASH_SLASH_SLASH]), (ACTIONS 9, 1,
       [sym__block_comment]), (ACTIONS 11, 1, [sym__documentation_block_comment]), (ACTIONS 5945,
       1, [anon_sym_COMMA]), (ACTIONS 6255, 1, [anon_sym_SEMI]), (STATE 2765, 1,
       [aux_sym_static_final_declaration_list_repeat1]), (STATE 2916, 2, [sym_comment,
       sym_documentation_comment])]),
     (138080, 9, [(ACTIONS 3, 1, [anon_sym_SLASH_SLASH]), (ACTIONS 5, 1,
       [anon_sym_SLASH_STAR]), (ACTIONS 7, 1, [anon_sym_SLASH_SLASH_SLASH]), (ACTIONS 9, 1,
       [sym__block_comment]), (ACTIONS 11, 1, [sym__documentation_block_comment]), (ACTIONS 554,
       1, [anon_sym_RBRACE]), (ACTIONS 6245, 1, [anon_sym_COMMA]), (STATE 2605, 1,
       [aux_sym_list_literal_repeat1]), (STATE 2917, 2, [sym_comment,
       sym_documentation_comment])]),
     (138109, 9, [(ACTIONS 3, 1, [anon_sym_SLASH_SLASH]), (ACTIONS 5, 1,
       [anon_sym_SLASH_STAR]), (ACTIONS 7, 1, [anon_sym_SLASH_SLASH_SLASH]), (ACTIONS 9, 1,
       [sym__block_comment]), (ACTIONS 11, 1, [sym__documentation_block_comment]), (ACTIONS 5831,
       1, [sym_identifier]), (STATE 2916, 1, [sym_static_final_declaration]), (STATE 3264, 1,
       [sym_static_final_declaration_list]), (STATE 2918, 2, [sym_comment,
       sym_documentation_comment])]),
     (138138, 9, [(ACTIONS 3, 1, [anon_sym_SLASH_SLASH]), (ACTIONS 5, 1,
       [anon_sym_SLASH_STAR]), (ACTIONS 7, 1, [anon_sym_SLASH_SLASH_SLASH]), (ACTIONS 9, 1,
       [sym__block_comment]), (ACTIONS 11, 1, [sym__documentation_block_comment]), (ACTIONS 3775,
       1, [anon_sym_RPAREN]), (ACTIONS 6257, 1, [anon_sym_COMMA]), (STATE 2630, 1,
       [aux_sym_parameter_type_list_repeat1]), (STATE 2919, 2, [sym_comment,
       sym_documentation_comment])]),
     (138167, 9, [(ACTIONS 3, 1, [anon_sym_SLASH_SLASH]), (ACTIONS 5, 1,
       [anon_sym_SLASH_STAR]), (ACTIONS 7, 1, [anon_sym_SLASH_SLASH_SLASH]), (ACTIONS 9, 1,
       [sym__block_comment]), (ACTIONS 11, 1, [sym__documentation_block_comment]), (ACTIONS 3398,
       1, [anon_sym_LPAREN]), (ACTIONS 6259, 1, [anon_sym_DOT]), (STATE 2349, 1,
       [sym_arguments]), (STATE 2920, 2, [sym_comment, sym_documentation_comment])]),
     (138196, 9, [(ACTIONS 3, 1, [anon_sym_SLASH_SLASH]), (ACTIONS 5, 1,
       [anon_sym_SLASH_STAR]), (ACTIONS 7, 1, [anon_sym_SLASH_SLASH_SLASH]), (ACTIONS 9, 1,
       [sym__block_comment]), (ACTIONS 11, 1, [sym__documentation_block_comment]), (ACTIONS 5094,
       1, [anon_sym_SEMI]), (ACTIONS 5331, 1, [anon_sym_native]), (STATE 2506, 1, [sym__native]),
       (STATE 2921, 2, [sym_comment, sym_documentation_comment])])]"

lemma small_run_893: "small_run 2915 138022 ts_small_parse_table_893 2922 138225"
  by (simp add: small_simps ts_small_parse_table_893_def)

definition ts_small_parse_table_894 :: "small_group list" where
  "ts_small_parse_table_894 = [
     (138225, 8, [(ACTIONS 3, 1, [anon_sym_SLASH_SLASH]), (ACTIONS 5, 1,
       [anon_sym_SLASH_STAR]), (ACTIONS 7, 1, [anon_sym_SLASH_SLASH_SLASH]), (ACTIONS 9, 1,
       [sym__block_comment]), (ACTIONS 11, 1, [sym__documentation_block_comment]), (ACTIONS 6261,
       1, [anon_sym_COMMA]), (ACTIONS 6264, 1, [anon_sym_RPAREN]), (STATE 2922, 3, [sym_comment,
       sym_documentation_comment, aux_sym_record_type_repeat1])]),
     (138252, 9, [(ACTIONS 3, 1, [anon_sym_SLASH_SLASH]), (ACTIONS 5, 1,
       [anon_sym_SLASH_STAR]), (ACTIONS 7, 1, [anon_sym_SLASH_SLASH_SLASH]), (ACTIONS 9, 1,
       [sym__block_comment]), (ACTIONS 11, 1, [sym__documentation_block_comment]), (ACTIONS 5754,
       1, [anon_sym_COMMA]), (ACTIONS 6266, 1, [anon_sym_GT]), (STATE 2989, 1,
       [aux_sym_type_arguments_repeat1]), (STATE 2923, 2, [sym_comment,
       sym_documentation_comment])]),
     (138281, 9, [(ACTIONS 3, 1, [anon_sym_SLASH_SLASH]), (ACTIONS 5, 1,
       [anon_sym_SLASH_STAR]), (ACTIONS 7, 1, [anon_sym_SLASH_SLASH_SLASH]), (ACTIONS 9, 1,
       [sym__block_comment]), (ACTIONS 11, 1, [sym__documentation_block_comment]), (ACTIONS 4230,
       1, [anon_sym_RBRACE]), (ACTIONS 6268, 1, [anon_sym_COMMA]), (STATE 2734, 1,
       [aux_sym_record_type_repeat2]), (STATE 2924, 2, [sym_comment,
       sym_documentation_comment])]),
     (138310, 9, [(ACTIONS 3, 1, [anon_sym_SLASH_SLASH]), (ACTIONS 5, 1,
       [anon_sym_SLASH_STAR]), (ACTIONS 7, 1, [anon_sym_SLASH_SLASH_SLASH]), (ACTIONS 9, 1,
       [sym__block_comment]), (ACTIONS 11, 1, [sym__documentation_block_comment]), (ACTIONS 6270,
       1, [anon_sym_RBRACE]), (ACTIONS 6272, 1, [anon_sym_COMMA]), (STATE 2942, 1,
       [aux_sym_switch_expression_repeat1]), (STATE 2925, 2, [sym_comment,
       sym_documentation_comment])]),
     (138339, 9, [(ACTIONS 3, 1, [anon_sym_SLASH_SLASH]), (ACTIONS 5, 1,
       [anon_sym_SLASH_STAR]), (ACTIONS 7, 1, [anon_sym_SLASH_SLASH_SLASH]), (ACTIONS 9, 1,
       [sym__block_comment]), (ACTIONS 11, 1, [sym__documentation_block_comment]), (ACTIONS 5250,
       1, [anon_sym_LBRACE]), (ACTIONS 6274, 1, [anon_sym_EQ_GT]), (STATE 1225, 1, [sym_block]),
       (STATE 2926, 2, [sym_comment, sym_documentation_comment])]),
     (138368, 9, [(ACTIONS 3, 1, [anon_sym_SLASH_SLASH]), (ACTIONS 5, 1,
       [anon_sym_SLASH_STAR]), (ACTIONS 7, 1, [anon_sym_SLASH_SLASH_SLASH]), (ACTIONS 9, 1,
       [sym__block_comment]), (ACTIONS 11, 1, [sym__documentation_block_comment]), (ACTIONS 560,
       1, [anon_sym_RBRACE]), (ACTIONS 6276, 1, [anon_sym_COMMA]), (STATE 2605, 1,
       [aux_sym_list_literal_repeat1]), (STATE 2927, 2, [sym_comment,
       sym_documentation_comment])]),
     (138397, 9, [(ACTIONS 3, 1, [anon_sym_SLASH_SLASH]), (ACTIONS 5, 1,
       [anon_sym_SLASH_STAR]), (ACTIONS 7, 1, [anon_sym_SLASH_SLASH_SLASH]), (ACTIONS 9, 1,
       [sym__block_comment]), (ACTIONS 11, 1, [sym__documentation_block_comment]), (ACTIONS 536,
       1, [anon_sym_RBRACK]), (ACTIONS 6278, 1, [anon_sym_COMMA]), (STATE 2605, 1,
       [aux_sym_list_literal_repeat1]), (STATE 2928, 2, [sym_comment,
       sym_documentation_comment])])]"

lemma small_run_894: "small_run 2922 138225 ts_small_parse_table_894 2929 138426"
  by (simp add: small_simps ts_small_parse_table_894_def)

definition ts_small_parse_table_895 :: "small_group list" where
  "ts_small_parse_table_895 = [
     (138426, 9, [(ACTIONS 3, 1, [anon_sym_SLASH_SLASH]), (ACTIONS 5, 1,
       [anon_sym_SLASH_STAR]), (ACTIONS 7, 1, [anon_sym_SLASH_SLASH_SLASH]), (ACTIONS 9, 1,
       [sym__block_comment]), (ACTIONS 11, 1, [sym__documentation_block_comment]), (ACTIONS 560,
       1, [anon_sym_RBRACE]), (ACTIONS 6276, 1, [anon_sym_COMMA]), (STATE 2945, 1,
       [aux_sym_list_literal_repeat1]), (STATE 2929, 2, [sym_comment,
       sym_documentation_comment])]),
     (138455, 9, [(ACTIONS 3, 1, [anon_sym_SLASH_SLASH]), (ACTIONS 5, 1,
       [anon_sym_SLASH_STAR]), (ACTIONS 7, 1, [anon_sym_SLASH_SLASH_SLASH]), (ACTIONS 9, 1,
       [sym__block_comment]), (ACTIONS 11, 1, [sym__documentation_block_comment]), (ACTIONS 536,
       1, [anon_sym_RBRACK]), (ACTIONS 6278, 1, [anon_sym_COMMA]), (STATE 2946, 1,
       [aux_sym_list_literal_repeat1]), (STATE 2930, 2, [sym_comment,
       sym_documentation_comment])]),
     (138484, 9, [(ACTIONS 3, 1, [anon_sym_SLASH_SLASH]), (ACTIONS 5, 1,
       [anon_sym_SLASH_STAR]), (ACTIONS 7, 1, [anon_sym_SLASH_SLASH_SLASH]), (ACTIONS 9, 1,
       [sym__block_comment]), (ACTIONS 11, 1, [sym__documentation_block_comment]), (ACTIONS 6280,
       1, [anon_sym_COMMA]), (ACTIONS 6282, 1, [anon_sym_RPAREN]), (STATE 2736, 1,
       [aux_sym__argument_list_repeat1]), (STATE 2931, 2, [sym_comment,
       sym_documentation_comment])]),
     (138513, 9, [(ACTIONS 3, 1, [anon_sym_SLASH_SLASH]), (ACTIONS 5, 1,
       [anon_sym_SLASH_STAR]), (ACTIONS 7, 1, [anon_sym_SLASH_SLASH_SLASH]), (ACTIONS 9, 1,
       [sym__block_comment]), (ACTIONS 11, 1, [sym__documentation_block_comment]), (ACTIONS 4278,
       1, [anon_sym_LPAREN]), (STATE 2009, 1, [sym_formal_parameter_list]), (STATE 2016, 1,
       [sym__strict_formal_parameter_list]), (STATE 2932, 2, [sym_comment,
       sym_documentation_comment])]),
     (138542, 9, [(ACTIONS 3, 1, [anon_sym_SLASH_SLASH]), (ACTIONS 5, 1,
       [anon_sym_SLASH_STAR]), (ACTIONS 7, 1, [anon_sym_SLASH_SLASH_SLASH]), (ACTIONS 9, 1,
       [sym__block_comment]), (ACTIONS 11, 1, [sym__documentation_block_comment]), (ACTIONS 6284,
       1, [anon_sym_RBRACE]), (ACTIONS 6286, 1, [anon_sym_COMMA]), (STATE 2937, 1,
       [aux_sym_record_type_repeat2]), (STATE 2933, 2, [sym_comment,
       sym_documentation_comment])]),
     (138571, 9, [(ACTIONS 3, 1, [anon_sym_SLASH_SLASH]), (ACTIONS 5, 1,
       [anon_sym_SLASH_STAR]), (ACTIONS 7, 1, [anon_sym_SLASH_SLASH_SLASH]), (ACTIONS 9, 1,
       [sym__block_comment]), (ACTIONS 11, 1, [sym__documentation_block_comment]), (ACTIONS 5805,
       1, [sym_identifier]), (STATE 2991, 1, [sym_initialized_identifier]), (STATE 3314, 1,
       [sym_initialized_identifier_list]), (STATE 2934, 2, [sym_comment,
       sym_documentation_comment])]),
     (138600, 9, [(ACTIONS 3, 1, [anon_sym_SLASH_SLASH]), (ACTIONS 5, 1,
       [anon_sym_SLASH_STAR]), (ACTIONS 7, 1, [anon_sym_SLASH_SLASH_SLASH]), (ACTIONS 9, 1,
       [sym__block_comment]), (ACTIONS 11, 1, [sym__documentation_block_comment]), (ACTIONS 5805,
       1, [sym_identifier]), (STATE 2991, 1, [sym_initialized_identifier]), (STATE 3546, 1,
       [sym_initialized_identifier_list]), (STATE 2935, 2, [sym_comment,
       sym_documentation_comment])])]"

lemma small_run_895: "small_run 2929 138426 ts_small_parse_table_895 2936 138629"
  by (simp add: small_simps ts_small_parse_table_895_def)

definition ts_small_parse_table_part_9 :: "small_group list" where
  "ts_small_parse_table_part_9 =
     ts_small_parse_table_818 @ ts_small_parse_table_819 @ ts_small_parse_table_820 @
     ts_small_parse_table_821 @ ts_small_parse_table_822 @ ts_small_parse_table_823 @
     ts_small_parse_table_824 @ ts_small_parse_table_825 @ ts_small_parse_table_826 @
     ts_small_parse_table_827 @ ts_small_parse_table_828 @ ts_small_parse_table_829 @
     ts_small_parse_table_830 @ ts_small_parse_table_831 @ ts_small_parse_table_832 @
     ts_small_parse_table_833 @ ts_small_parse_table_834 @ ts_small_parse_table_835 @
     ts_small_parse_table_836 @ ts_small_parse_table_837 @ ts_small_parse_table_838 @
     ts_small_parse_table_839 @ ts_small_parse_table_840 @ ts_small_parse_table_841 @
     ts_small_parse_table_842 @ ts_small_parse_table_843 @ ts_small_parse_table_844 @
     ts_small_parse_table_845 @ ts_small_parse_table_846 @ ts_small_parse_table_847 @
     ts_small_parse_table_848 @ ts_small_parse_table_849 @ ts_small_parse_table_850 @
     ts_small_parse_table_851 @ ts_small_parse_table_852 @ ts_small_parse_table_853 @
     ts_small_parse_table_854 @ ts_small_parse_table_855 @ ts_small_parse_table_856 @
     ts_small_parse_table_857 @ ts_small_parse_table_858 @ ts_small_parse_table_859 @
     ts_small_parse_table_860 @ ts_small_parse_table_861 @ ts_small_parse_table_862 @
     ts_small_parse_table_863 @ ts_small_parse_table_864 @ ts_small_parse_table_865 @
     ts_small_parse_table_866 @ ts_small_parse_table_867 @ ts_small_parse_table_868 @
     ts_small_parse_table_869 @ ts_small_parse_table_870 @ ts_small_parse_table_871 @
     ts_small_parse_table_872 @ ts_small_parse_table_873 @ ts_small_parse_table_874 @
     ts_small_parse_table_875 @ ts_small_parse_table_876 @ ts_small_parse_table_877 @
     ts_small_parse_table_878 @ ts_small_parse_table_879 @ ts_small_parse_table_880 @
     ts_small_parse_table_881 @ ts_small_parse_table_882 @ ts_small_parse_table_883 @
     ts_small_parse_table_884 @ ts_small_parse_table_885 @ ts_small_parse_table_886 @
     ts_small_parse_table_887 @ ts_small_parse_table_888 @ ts_small_parse_table_889 @
     ts_small_parse_table_890 @ ts_small_parse_table_891 @ ts_small_parse_table_892 @
     ts_small_parse_table_893 @ ts_small_parse_table_894 @ ts_small_parse_table_895"

lemma small_part_9: "small_run 2420 123028 ts_small_parse_table_part_9 2936 138629"
  unfolding ts_small_parse_table_part_9_def
  by (rule small_run_append [OF small_run_818], rule small_run_append [OF small_run_819],
    rule small_run_append [OF small_run_820], rule small_run_append [OF small_run_821],
    rule small_run_append [OF small_run_822], rule small_run_append [OF small_run_823],
    rule small_run_append [OF small_run_824], rule small_run_append [OF small_run_825],
    rule small_run_append [OF small_run_826], rule small_run_append [OF small_run_827],
    rule small_run_append [OF small_run_828], rule small_run_append [OF small_run_829],
    rule small_run_append [OF small_run_830], rule small_run_append [OF small_run_831],
    rule small_run_append [OF small_run_832], rule small_run_append [OF small_run_833],
    rule small_run_append [OF small_run_834], rule small_run_append [OF small_run_835],
    rule small_run_append [OF small_run_836], rule small_run_append [OF small_run_837],
    rule small_run_append [OF small_run_838], rule small_run_append [OF small_run_839],
    rule small_run_append [OF small_run_840], rule small_run_append [OF small_run_841],
    rule small_run_append [OF small_run_842], rule small_run_append [OF small_run_843],
    rule small_run_append [OF small_run_844], rule small_run_append [OF small_run_845],
    rule small_run_append [OF small_run_846], rule small_run_append [OF small_run_847],
    rule small_run_append [OF small_run_848], rule small_run_append [OF small_run_849],
    rule small_run_append [OF small_run_850], rule small_run_append [OF small_run_851],
    rule small_run_append [OF small_run_852], rule small_run_append [OF small_run_853],
    rule small_run_append [OF small_run_854], rule small_run_append [OF small_run_855],
    rule small_run_append [OF small_run_856], rule small_run_append [OF small_run_857],
    rule small_run_append [OF small_run_858], rule small_run_append [OF small_run_859],
    rule small_run_append [OF small_run_860], rule small_run_append [OF small_run_861],
    rule small_run_append [OF small_run_862], rule small_run_append [OF small_run_863],
    rule small_run_append [OF small_run_864], rule small_run_append [OF small_run_865],
    rule small_run_append [OF small_run_866], rule small_run_append [OF small_run_867],
    rule small_run_append [OF small_run_868], rule small_run_append [OF small_run_869],
    rule small_run_append [OF small_run_870], rule small_run_append [OF small_run_871],
    rule small_run_append [OF small_run_872], rule small_run_append [OF small_run_873],
    rule small_run_append [OF small_run_874], rule small_run_append [OF small_run_875],
    rule small_run_append [OF small_run_876], rule small_run_append [OF small_run_877],
    rule small_run_append [OF small_run_878], rule small_run_append [OF small_run_879],
    rule small_run_append [OF small_run_880], rule small_run_append [OF small_run_881],
    rule small_run_append [OF small_run_882], rule small_run_append [OF small_run_883],
    rule small_run_append [OF small_run_884], rule small_run_append [OF small_run_885],
    rule small_run_append [OF small_run_886], rule small_run_append [OF small_run_887],
    rule small_run_append [OF small_run_888], rule small_run_append [OF small_run_889],
    rule small_run_append [OF small_run_890], rule small_run_append [OF small_run_891],
    rule small_run_append [OF small_run_892], rule small_run_append [OF small_run_893],
    rule small_run_append [OF small_run_894], rule small_run_895)

end
