(* ===== verification/Dart_Small_10.thy ===== *)
theory Dart_Small_10
  imports Dart_Items
begin

text \<open>
  The groups of \<^verbatim>\<open>ts_small_parse_table\<close> for the states 2936 to 3576, in blocks of at most 150 lines of
  the source, each with the check of its layout and of its entries.
\<close>

definition ts_small_parse_table_896 :: "small_group list" where
  "ts_small_parse_table_896 = [
     (138629, 9, [(ACTIONS 3, 1, [anon_sym_SLASH_SLASH]), (ACTIONS 5, 1,
       [anon_sym_SLASH_STAR]), (ACTIONS 7, 1, [anon_sym_SLASH_SLASH_SLASH]), (ACTIONS 9, 1,
       [sym__block_comment]), (ACTIONS 11, 1, [sym__documentation_block_comment]), (ACTIONS 4278,
       1, [anon_sym_LPAREN]), (STATE 2016, 1, [sym__strict_formal_parameter_list]), (STATE 2265,
       1, [sym_formal_parameter_list]), (STATE 2936, 2, [sym_comment,
       sym_documentation_comment])]),
     (138658, 9, [(ACTIONS 3, 1, [anon_sym_SLASH_SLASH]), (ACTIONS 5, 1,
       [anon_sym_SLASH_STAR]), (ACTIONS 7, 1, [anon_sym_SLASH_SLASH_SLASH]), (ACTIONS 9, 1,
       [sym__block_comment]), (ACTIONS 11, 1, [sym__documentation_block_comment]), (ACTIONS 4208,
       1, [anon_sym_RBRACE]), (ACTIONS 6288, 1, [anon_sym_COMMA]), (STATE 2734, 1,
       [aux_sym_record_type_repeat2]), (STATE 2937, 2, [sym_comment,
       sym_documentation_comment])]),
     (138687, 9, [(ACTIONS 3, 1, [anon_sym_SLASH_SLASH]), (ACTIONS 5, 1,
       [anon_sym_SLASH_STAR]), (ACTIONS 7, 1, [anon_sym_SLASH_SLASH_SLASH]), (ACTIONS 9, 1,
       [sym__block_comment]), (ACTIONS 11, 1, [sym__documentation_block_comment]), (ACTIONS 4200,
       1, [anon_sym_RBRACE]), (ACTIONS 6290, 1, [anon_sym_COMMA]), (STATE 2948, 1,
       [aux_sym_record_type_repeat2]), (STATE 2938, 2, [sym_comment,
       sym_documentation_comment])]),
     (138716, 9, [(ACTIONS 3, 1, [anon_sym_SLASH_SLASH]), (ACTIONS 5, 1,
       [anon_sym_SLASH_STAR]), (ACTIONS 7, 1, [anon_sym_SLASH_SLASH_SLASH]), (ACTIONS 9, 1,
       [sym__block_comment]), (ACTIONS 11, 1, [sym__documentation_block_comment]), (ACTIONS 5031,
       1, [anon_sym_SEMI]), (ACTIONS 5855, 1, [anon_sym_COMMA]), (STATE 2950, 1,
       [aux_sym_initializers_repeat1]), (STATE 2939, 2, [sym_comment,
       sym_documentation_comment])]),
     (138745, 9, [(ACTIONS 3, 1, [anon_sym_SLASH_SLASH]), (ACTIONS 5, 1,
       [anon_sym_SLASH_STAR]), (ACTIONS 7, 1, [anon_sym_SLASH_SLASH_SLASH]), (ACTIONS 9, 1,
       [sym__block_comment]), (ACTIONS 11, 1, [sym__documentation_block_comment]), (ACTIONS 5037,
       1, [anon_sym_SEMI]), (ACTIONS 5331, 1, [anon_sym_native]), (STATE 2446, 1, [sym__native]),
       (STATE 2940, 2, [sym_comment, sym_documentation_comment])]),
     (138774, 9, [(ACTIONS 3, 1, [anon_sym_SLASH_SLASH]), (ACTIONS 5, 1,
       [anon_sym_SLASH_STAR]), (ACTIONS 7, 1, [anon_sym_SLASH_SLASH_SLASH]), (ACTIONS 9, 1,
       [sym__block_comment]), (ACTIONS 11, 1, [sym__documentation_block_comment]), (ACTIONS 2160,
       1, [anon_sym_LPAREN]), (ACTIONS 6292, 1, [anon_sym_DOT]), (STATE 2349, 1,
       [sym_arguments]), (STATE 2941, 2, [sym_comment, sym_documentation_comment])]),
     (138803, 9, [(ACTIONS 3, 1, [anon_sym_SLASH_SLASH]), (ACTIONS 5, 1,
       [anon_sym_SLASH_STAR]), (ACTIONS 7, 1, [anon_sym_SLASH_SLASH_SLASH]), (ACTIONS 9, 1,
       [sym__block_comment]), (ACTIONS 11, 1, [sym__documentation_block_comment]), (ACTIONS 1003,
       1, [anon_sym_RBRACE]), (ACTIONS 6294, 1, [anon_sym_COMMA]), (STATE 2758, 1,
       [aux_sym_switch_expression_repeat1]), (STATE 2942, 2, [sym_comment,
       sym_documentation_comment])])]"

lemma small_run_896: "small_run 2936 138629 ts_small_parse_table_896 2943 138832"
  by (simp add: small_simps ts_small_parse_table_896_def)

definition ts_small_parse_table_897 :: "small_group list" where
  "ts_small_parse_table_897 = [
     (138832, 7, [(ACTIONS 3, 1, [anon_sym_SLASH_SLASH]), (ACTIONS 5, 1,
       [anon_sym_SLASH_STAR]), (ACTIONS 7, 1, [anon_sym_SLASH_SLASH_SLASH]), (ACTIONS 9, 1,
       [sym__block_comment]), (ACTIONS 11, 1, [sym__documentation_block_comment]), (STATE 2943,
       2, [sym_comment, sym_documentation_comment]), (ACTIONS 4404, 3, [anon_sym_this,
       anon_sym_super, sym_identifier])]),
     (138857, 9, [(ACTIONS 3, 1, [anon_sym_SLASH_SLASH]), (ACTIONS 5, 1,
       [anon_sym_SLASH_STAR]), (ACTIONS 7, 1, [anon_sym_SLASH_SLASH_SLASH]), (ACTIONS 9, 1,
       [sym__block_comment]), (ACTIONS 11, 1, [sym__documentation_block_comment]), (ACTIONS 155,
       1, [anon_sym_new]), (ACTIONS 6296, 1, [sym_identifier]), (STATE 2428, 1,
       [sym__new_builtin]), (STATE 2944, 2, [sym_comment, sym_documentation_comment])]),
     (138886, 9, [(ACTIONS 3, 1, [anon_sym_SLASH_SLASH]), (ACTIONS 5, 1,
       [anon_sym_SLASH_STAR]), (ACTIONS 7, 1, [anon_sym_SLASH_SLASH_SLASH]), (ACTIONS 9, 1,
       [sym__block_comment]), (ACTIONS 11, 1, [sym__documentation_block_comment]), (ACTIONS 592,
       1, [anon_sym_RBRACE]), (ACTIONS 6298, 1, [anon_sym_COMMA]), (STATE 2605, 1,
       [aux_sym_list_literal_repeat1]), (STATE 2945, 2, [sym_comment,
       sym_documentation_comment])]),
     (138915, 9, [(ACTIONS 3, 1, [anon_sym_SLASH_SLASH]), (ACTIONS 5, 1,
       [anon_sym_SLASH_STAR]), (ACTIONS 7, 1, [anon_sym_SLASH_SLASH_SLASH]), (ACTIONS 9, 1,
       [sym__block_comment]), (ACTIONS 11, 1, [sym__documentation_block_comment]), (ACTIONS 576,
       1, [anon_sym_RBRACK]), (ACTIONS 6300, 1, [anon_sym_COMMA]), (STATE 2605, 1,
       [aux_sym_list_literal_repeat1]), (STATE 2946, 2, [sym_comment,
       sym_documentation_comment])]),
     (138944, 9, [(ACTIONS 3, 1, [anon_sym_SLASH_SLASH]), (ACTIONS 5, 1,
       [anon_sym_SLASH_STAR]), (ACTIONS 7, 1, [anon_sym_SLASH_SLASH_SLASH]), (ACTIONS 9, 1,
       [sym__block_comment]), (ACTIONS 11, 1, [sym__documentation_block_comment]), (ACTIONS 3398,
       1, [anon_sym_LPAREN]), (ACTIONS 6302, 1, [anon_sym_DOT]), (STATE 3548, 1,
       [sym_arguments]), (STATE 2947, 2, [sym_comment, sym_documentation_comment])]),
     (138973, 9, [(ACTIONS 3, 1, [anon_sym_SLASH_SLASH]), (ACTIONS 5, 1,
       [anon_sym_SLASH_STAR]), (ACTIONS 7, 1, [anon_sym_SLASH_SLASH_SLASH]), (ACTIONS 9, 1,
       [sym__block_comment]), (ACTIONS 11, 1, [sym__documentation_block_comment]), (ACTIONS 4188,
       1, [anon_sym_RBRACE]), (ACTIONS 6304, 1, [anon_sym_COMMA]), (STATE 2734, 1,
       [aux_sym_record_type_repeat2]), (STATE 2948, 2, [sym_comment,
       sym_documentation_comment])]),
     (139002, 9, [(ACTIONS 3, 1, [anon_sym_SLASH_SLASH]), (ACTIONS 5, 1,
       [anon_sym_SLASH_STAR]), (ACTIONS 7, 1, [anon_sym_SLASH_SLASH_SLASH]), (ACTIONS 9, 1,
       [sym__block_comment]), (ACTIONS 11, 1, [sym__documentation_block_comment]), (ACTIONS 3161,
       1, [anon_sym_LT]), (ACTIONS 6306, 1, [anon_sym_DOT]), (STATE 3476, 1,
       [sym_type_arguments]), (STATE 2949, 2, [sym_comment, sym_documentation_comment])])]"

lemma small_run_897: "small_run 2943 138832 ts_small_parse_table_897 2950 139031"
  by (simp add: small_simps ts_small_parse_table_897_def)

definition ts_small_parse_table_898 :: "small_group list" where
  "ts_small_parse_table_898 = [
     (139031, 8, [(ACTIONS 3, 1, [anon_sym_SLASH_SLASH]), (ACTIONS 5, 1,
       [anon_sym_SLASH_STAR]), (ACTIONS 7, 1, [anon_sym_SLASH_SLASH_SLASH]), (ACTIONS 9, 1,
       [sym__block_comment]), (ACTIONS 11, 1, [sym__documentation_block_comment]), (ACTIONS 5112,
       1, [anon_sym_SEMI]), (ACTIONS 6308, 1, [anon_sym_COMMA]), (STATE 2950, 3, [sym_comment,
       sym_documentation_comment, aux_sym_initializers_repeat1])]),
     (139058, 9, [(ACTIONS 3, 1, [anon_sym_SLASH_SLASH]), (ACTIONS 5, 1,
       [anon_sym_SLASH_STAR]), (ACTIONS 7, 1, [anon_sym_SLASH_SLASH_SLASH]), (ACTIONS 9, 1,
       [sym__block_comment]), (ACTIONS 11, 1, [sym__documentation_block_comment]), (ACTIONS 4278,
       1, [anon_sym_LPAREN]), (STATE 2016, 1, [sym__strict_formal_parameter_list]), (STATE 2337,
       1, [sym_formal_parameter_list]), (STATE 2951, 2, [sym_comment,
       sym_documentation_comment])]),
     (139087, 9, [(ACTIONS 3, 1, [anon_sym_SLASH_SLASH]), (ACTIONS 5, 1,
       [anon_sym_SLASH_STAR]), (ACTIONS 7, 1, [anon_sym_SLASH_SLASH_SLASH]), (ACTIONS 9, 1,
       [sym__block_comment]), (ACTIONS 11, 1, [sym__documentation_block_comment]), (ACTIONS 5509,
       1, [anon_sym_COMMA]), (ACTIONS 6311, 1, [anon_sym_RPAREN]), (STATE 2874, 1,
       [aux_sym__for_loop_parts_repeat2]), (STATE 2952, 2, [sym_comment,
       sym_documentation_comment])]),
     (139116, 9, [(ACTIONS 3, 1, [anon_sym_SLASH_SLASH]), (ACTIONS 5, 1,
       [anon_sym_SLASH_STAR]), (ACTIONS 7, 1, [anon_sym_SLASH_SLASH_SLASH]), (ACTIONS 9, 1,
       [sym__block_comment]), (ACTIONS 11, 1, [sym__documentation_block_comment]), (ACTIONS 552,
       1, [anon_sym_RBRACE]), (ACTIONS 6112, 1, [anon_sym_COMMA]), (STATE 2757, 1,
       [aux_sym_list_literal_repeat1]), (STATE 2953, 2, [sym_comment,
       sym_documentation_comment])]),
     (139145, 9, [(ACTIONS 3, 1, [anon_sym_SLASH_SLASH]), (ACTIONS 5, 1,
       [anon_sym_SLASH_STAR]), (ACTIONS 7, 1, [anon_sym_SLASH_SLASH_SLASH]), (ACTIONS 9, 1,
       [sym__block_comment]), (ACTIONS 11, 1, [sym__documentation_block_comment]), (ACTIONS 556,
       1, [anon_sym_RBRACK]), (ACTIONS 6140, 1, [anon_sym_COMMA]), (STATE 2766, 1,
       [aux_sym_list_literal_repeat1]), (STATE 2954, 2, [sym_comment,
       sym_documentation_comment])]),
     (139174, 9, [(ACTIONS 3, 1, [anon_sym_SLASH_SLASH]), (ACTIONS 5, 1,
       [anon_sym_SLASH_STAR]), (ACTIONS 7, 1, [anon_sym_SLASH_SLASH_SLASH]), (ACTIONS 9, 1,
       [sym__block_comment]), (ACTIONS 11, 1, [sym__documentation_block_comment]), (ACTIONS 564,
       1, [anon_sym_RBRACK]), (ACTIONS 6313, 1, [anon_sym_COMMA]), (STATE 2915, 1,
       [aux_sym_list_literal_repeat1]), (STATE 2955, 2, [sym_comment,
       sym_documentation_comment])]),
     (139203, 9, [(ACTIONS 3, 1, [anon_sym_SLASH_SLASH]), (ACTIONS 5, 1,
       [anon_sym_SLASH_STAR]), (ACTIONS 7, 1, [anon_sym_SLASH_SLASH_SLASH]), (ACTIONS 9, 1,
       [sym__block_comment]), (ACTIONS 11, 1, [sym__documentation_block_comment]), (ACTIONS 566,
       1, [anon_sym_RBRACE]), (ACTIONS 6315, 1, [anon_sym_COMMA]), (STATE 2917, 1,
       [aux_sym_list_literal_repeat1]), (STATE 2956, 2, [sym_comment,
       sym_documentation_comment])])]"

lemma small_run_898: "small_run 2950 139031 ts_small_parse_table_898 2957 139232"
  by (simp add: small_simps ts_small_parse_table_898_def)

definition ts_small_parse_table_899 :: "small_group list" where
  "ts_small_parse_table_899 = [
     (139232, 9, [(ACTIONS 3, 1, [anon_sym_SLASH_SLASH]), (ACTIONS 5, 1,
       [anon_sym_SLASH_STAR]), (ACTIONS 7, 1, [anon_sym_SLASH_SLASH_SLASH]), (ACTIONS 9, 1,
       [sym__block_comment]), (ACTIONS 11, 1, [sym__documentation_block_comment]), (ACTIONS 4961,
       1, [anon_sym_mixin]), (ACTIONS 6317, 1, [anon_sym_class]), (STATE 3493, 1, [sym_mixin]),
       (STATE 2957, 2, [sym_comment, sym_documentation_comment])]),
     (139261, 9, [(ACTIONS 3, 1, [anon_sym_SLASH_SLASH]), (ACTIONS 5, 1,
       [anon_sym_SLASH_STAR]), (ACTIONS 7, 1, [anon_sym_SLASH_SLASH_SLASH]), (ACTIONS 9, 1,
       [sym__block_comment]), (ACTIONS 11, 1, [sym__documentation_block_comment]), (ACTIONS 5793,
       1, [anon_sym_COMMA]), (ACTIONS 6319, 1, [anon_sym_GT]), (STATE 2761, 1,
       [aux_sym_type_parameters_repeat1]), (STATE 2958, 2, [sym_comment,
       sym_documentation_comment])]),
     (139290, 9, [(ACTIONS 3, 1, [anon_sym_SLASH_SLASH]), (ACTIONS 5, 1,
       [anon_sym_SLASH_STAR]), (ACTIONS 7, 1, [anon_sym_SLASH_SLASH_SLASH]), (ACTIONS 9, 1,
       [sym__block_comment]), (ACTIONS 11, 1, [sym__documentation_block_comment]), (ACTIONS 6321,
       1, [anon_sym_COMMA]), (ACTIONS 6323, 1, [anon_sym_RPAREN]), (STATE 2919, 1,
       [aux_sym_parameter_type_list_repeat1]), (STATE 2959, 2, [sym_comment,
       sym_documentation_comment])]),
     (139319, 9, [(ACTIONS 3, 1, [anon_sym_SLASH_SLASH]), (ACTIONS 5, 1,
       [anon_sym_SLASH_STAR]), (ACTIONS 7, 1, [anon_sym_SLASH_SLASH_SLASH]), (ACTIONS 9, 1,
       [sym__block_comment]), (ACTIONS 11, 1, [sym__documentation_block_comment]), (ACTIONS 5754,
       1, [anon_sym_COMMA]), (ACTIONS 6325, 1, [anon_sym_GT]), (STATE 2923, 1,
       [aux_sym_type_arguments_repeat1]), (STATE 2960, 2, [sym_comment,
       sym_documentation_comment])]),
     (139348, 9, [(ACTIONS 3, 1, [anon_sym_SLASH_SLASH]), (ACTIONS 5, 1,
       [anon_sym_SLASH_STAR]), (ACTIONS 7, 1, [anon_sym_SLASH_SLASH_SLASH]), (ACTIONS 9, 1,
       [sym__block_comment]), (ACTIONS 11, 1, [sym__documentation_block_comment]), (ACTIONS 4188,
       1, [anon_sym_RBRACE]), (ACTIONS 6304, 1, [anon_sym_COMMA]), (STATE 2967, 1,
       [aux_sym_record_type_repeat2]), (STATE 2961, 2, [sym_comment,
       sym_documentation_comment])]),
     (139377, 9, [(ACTIONS 3, 1, [anon_sym_SLASH_SLASH]), (ACTIONS 5, 1,
       [anon_sym_SLASH_STAR]), (ACTIONS 7, 1, [anon_sym_SLASH_SLASH_SLASH]), (ACTIONS 9, 1,
       [sym__block_comment]), (ACTIONS 11, 1, [sym__documentation_block_comment]), (ACTIONS 5805,
       1, [sym_identifier]), (STATE 2991, 1, [sym_initialized_identifier]), (STATE 3302, 1,
       [sym_initialized_identifier_list]), (STATE 2962, 2, [sym_comment,
       sym_documentation_comment])]),
     (139406, 9, [(ACTIONS 3, 1, [anon_sym_SLASH_SLASH]), (ACTIONS 5, 1,
       [anon_sym_SLASH_STAR]), (ACTIONS 7, 1, [anon_sym_SLASH_SLASH_SLASH]), (ACTIONS 9, 1,
       [sym__block_comment]), (ACTIONS 11, 1, [sym__documentation_block_comment]), (ACTIONS 6327,
       1, [anon_sym_COMMA]), (ACTIONS 6330, 1, [anon_sym_RPAREN]), (STATE 2788, 1,
       [aux_sym__normal_formal_parameters_repeat1]), (STATE 2963, 2, [sym_comment,
       sym_documentation_comment])])]"

lemma small_run_899: "small_run 2957 139232 ts_small_parse_table_899 2964 139435"
  by (simp add: small_simps ts_small_parse_table_899_def)

definition ts_small_parse_table_900 :: "small_group list" where
  "ts_small_parse_table_900 = [
     (139435, 8, [(ACTIONS 3, 1, [anon_sym_SLASH_SLASH]), (ACTIONS 5, 1,
       [anon_sym_SLASH_STAR]), (ACTIONS 7, 1, [anon_sym_SLASH_SLASH_SLASH]), (ACTIONS 9, 1,
       [sym__block_comment]), (ACTIONS 11, 1, [sym__documentation_block_comment]), (ACTIONS 6332,
       1, [anon_sym_COMMA]), (ACTIONS 6335, 1, [anon_sym_RBRACK]), (STATE 2964, 3, [sym_comment,
       sym_documentation_comment, aux_sym_positional_parameters_repeat1])]),
     (139462, 7, [(ACTIONS 3, 1, [anon_sym_SLASH_SLASH]), (ACTIONS 5, 1,
       [anon_sym_SLASH_STAR]), (ACTIONS 7, 1, [anon_sym_SLASH_SLASH_SLASH]), (ACTIONS 9, 1,
       [sym__block_comment]), (ACTIONS 11, 1, [sym__documentation_block_comment]), (STATE 2965,
       2, [sym_comment, sym_documentation_comment]), (ACTIONS 6337, 3, [anon_sym_this,
       anon_sym_super, sym_identifier])]),
     (139487, 9, [(ACTIONS 3, 1, [anon_sym_SLASH_SLASH]), (ACTIONS 5, 1,
       [anon_sym_SLASH_STAR]), (ACTIONS 7, 1, [anon_sym_SLASH_SLASH_SLASH]), (ACTIONS 9, 1,
       [sym__block_comment]), (ACTIONS 11, 1, [sym__documentation_block_comment]), (ACTIONS 5793,
       1, [anon_sym_COMMA]), (ACTIONS 6339, 1, [anon_sym_GT]), (STATE 2958, 1,
       [aux_sym_type_parameters_repeat1]), (STATE 2966, 2, [sym_comment,
       sym_documentation_comment])]),
     (139516, 9, [(ACTIONS 3, 1, [anon_sym_SLASH_SLASH]), (ACTIONS 5, 1,
       [anon_sym_SLASH_STAR]), (ACTIONS 7, 1, [anon_sym_SLASH_SLASH_SLASH]), (ACTIONS 9, 1,
       [sym__block_comment]), (ACTIONS 11, 1, [sym__documentation_block_comment]), (ACTIONS 4178,
       1, [anon_sym_RBRACE]), (ACTIONS 6341, 1, [anon_sym_COMMA]), (STATE 2734, 1,
       [aux_sym_record_type_repeat2]), (STATE 2967, 2, [sym_comment,
       sym_documentation_comment])]),
     (139545, 9, [(ACTIONS 3, 1, [anon_sym_SLASH_SLASH]), (ACTIONS 5, 1,
       [anon_sym_SLASH_STAR]), (ACTIONS 7, 1, [anon_sym_SLASH_SLASH_SLASH]), (ACTIONS 9, 1,
       [sym__block_comment]), (ACTIONS 11, 1, [sym__documentation_block_comment]), (ACTIONS 155,
       1, [anon_sym_new]), (ACTIONS 6343, 1, [sym_identifier]), (STATE 3236, 1,
       [sym__new_builtin]), (STATE 2968, 2, [sym_comment, sym_documentation_comment])]),
     (139574, 9, [(ACTIONS 3, 1, [anon_sym_SLASH_SLASH]), (ACTIONS 5, 1,
       [anon_sym_SLASH_STAR]), (ACTIONS 7, 1, [anon_sym_SLASH_SLASH_SLASH]), (ACTIONS 9, 1,
       [sym__block_comment]), (ACTIONS 11, 1, [sym__documentation_block_comment]), (ACTIONS 4196,
       1, [anon_sym_RBRACE]), (ACTIONS 6345, 1, [anon_sym_COMMA]), (STATE 2734, 1,
       [aux_sym_record_type_repeat2]), (STATE 2969, 2, [sym_comment,
       sym_documentation_comment])]),
     (139603, 9, [(ACTIONS 3, 1, [anon_sym_SLASH_SLASH]), (ACTIONS 5, 1,
       [anon_sym_SLASH_STAR]), (ACTIONS 7, 1, [anon_sym_SLASH_SLASH_SLASH]), (ACTIONS 9, 1,
       [sym__block_comment]), (ACTIONS 11, 1, [sym__documentation_block_comment]), (ACTIONS 5805,
       1, [sym_identifier]), (STATE 2991, 1, [sym_initialized_identifier]), (STATE 3264, 1,
       [sym_initialized_identifier_list]), (STATE 2970, 2, [sym_comment,
       sym_documentation_comment])])]"

lemma small_run_900: "small_run 2964 139435 ts_small_parse_table_900 2971 139632"
  by (simp add: small_simps ts_small_parse_table_900_def)

definition ts_small_parse_table_901 :: "small_group list" where
  "ts_small_parse_table_901 = [
     (139632, 7, [(ACTIONS 3, 1, [anon_sym_SLASH_SLASH]), (ACTIONS 5, 1,
       [anon_sym_SLASH_STAR]), (ACTIONS 7, 1, [anon_sym_SLASH_SLASH_SLASH]), (ACTIONS 9, 1,
       [sym__block_comment]), (ACTIONS 11, 1, [sym__documentation_block_comment]), (STATE 2971,
       2, [sym_comment, sym_documentation_comment]), (ACTIONS 6347, 3, [anon_sym_LBRACE,
       anon_sym_SEMI, anon_sym_implements])]),
     (139657, 9, [(ACTIONS 3, 1, [anon_sym_SLASH_SLASH]), (ACTIONS 5, 1,
       [anon_sym_SLASH_STAR]), (ACTIONS 7, 1, [anon_sym_SLASH_SLASH_SLASH]), (ACTIONS 9, 1,
       [sym__block_comment]), (ACTIONS 11, 1, [sym__documentation_block_comment]), (ACTIONS 991,
       1, [anon_sym_RBRACK]), (ACTIONS 6142, 1, [anon_sym_COMMA]), (STATE 2824, 1,
       [aux_sym_list_pattern_repeat1]), (STATE 2972, 2, [sym_comment,
       sym_documentation_comment])]),
     (139686, 9, [(ACTIONS 3, 1, [anon_sym_SLASH_SLASH]), (ACTIONS 5, 1,
       [anon_sym_SLASH_STAR]), (ACTIONS 7, 1, [anon_sym_SLASH_SLASH_SLASH]), (ACTIONS 9, 1,
       [sym__block_comment]), (ACTIONS 11, 1, [sym__documentation_block_comment]), (ACTIONS 4278,
       1, [anon_sym_LPAREN]), (STATE 2016, 1, [sym__strict_formal_parameter_list]), (STATE 3230,
       1, [sym_formal_parameter_list]), (STATE 2973, 2, [sym_comment,
       sym_documentation_comment])]),
     (139715, 9, [(ACTIONS 3, 1, [anon_sym_SLASH_SLASH]), (ACTIONS 5, 1,
       [anon_sym_SLASH_STAR]), (ACTIONS 7, 1, [anon_sym_SLASH_SLASH_SLASH]), (ACTIONS 9, 1,
       [sym__block_comment]), (ACTIONS 11, 1, [sym__documentation_block_comment]), (ACTIONS 4196,
       1, [anon_sym_RBRACE]), (ACTIONS 6345, 1, [anon_sym_COMMA]), (STATE 3000, 1,
       [aux_sym_record_type_repeat2]), (STATE 2974, 2, [sym_comment,
       sym_documentation_comment])]),
     (139744, 8, [(ACTIONS 3, 1, [anon_sym_SLASH_SLASH]), (ACTIONS 5, 1,
       [anon_sym_SLASH_STAR]), (ACTIONS 7, 1, [anon_sym_SLASH_SLASH_SLASH]), (ACTIONS 9, 1,
       [sym__block_comment]), (ACTIONS 11, 1, [sym__documentation_block_comment]), (ACTIONS 4947,
       1, [anon_sym_EQ]), (ACTIONS 4945, 2, [anon_sym_COMMA, anon_sym_SEMI]), (STATE 2975, 2,
       [sym_comment, sym_documentation_comment])]),
     (139771, 8, [(ACTIONS 3, 1, [anon_sym_SLASH_SLASH]), (ACTIONS 5, 1,
       [anon_sym_SLASH_STAR]), (ACTIONS 7, 1, [anon_sym_SLASH_SLASH_SLASH]), (ACTIONS 9, 1,
       [sym__block_comment]), (ACTIONS 11, 1, [sym__documentation_block_comment]), (ACTIONS 6349,
       1, [anon_sym_COMMA]), (ACTIONS 6352, 1, [anon_sym_SEMI]), (STATE 2976, 3, [sym_comment,
       sym_documentation_comment, aux_sym_static_final_declaration_list_repeat1])]),
     (139798, 9, [(ACTIONS 3, 1, [anon_sym_SLASH_SLASH]), (ACTIONS 5, 1,
       [anon_sym_SLASH_STAR]), (ACTIONS 7, 1, [anon_sym_SLASH_SLASH_SLASH]), (ACTIONS 9, 1,
       [sym__block_comment]), (ACTIONS 11, 1, [sym__documentation_block_comment]), (ACTIONS 4156,
       1, [anon_sym_RPAREN]), (ACTIONS 6354, 1, [anon_sym_COMMA]), (STATE 2922, 1,
       [aux_sym_record_type_repeat1]), (STATE 2977, 2, [sym_comment,
       sym_documentation_comment])])]"

lemma small_run_901: "small_run 2971 139632 ts_small_parse_table_901 2978 139827"
  by (simp add: small_simps ts_small_parse_table_901_def)

definition ts_small_parse_table_902 :: "small_group list" where
  "ts_small_parse_table_902 = [
     (139827, 9, [(ACTIONS 3, 1, [anon_sym_SLASH_SLASH]), (ACTIONS 5, 1,
       [anon_sym_SLASH_STAR]), (ACTIONS 7, 1, [anon_sym_SLASH_SLASH_SLASH]), (ACTIONS 9, 1,
       [sym__block_comment]), (ACTIONS 11, 1, [sym__documentation_block_comment]), (ACTIONS 5552,
       1, [anon_sym_COMMA]), (ACTIONS 6356, 1, [anon_sym_SEMI]), (STATE 2847, 1,
       [aux_sym_initialized_identifier_list_repeat1]), (STATE 2978, 2, [sym_comment,
       sym_documentation_comment])]),
     (139856, 8, [(ACTIONS 3, 1, [anon_sym_SLASH_SLASH]), (ACTIONS 5, 1,
       [anon_sym_SLASH_STAR]), (ACTIONS 7, 1, [anon_sym_SLASH_SLASH_SLASH]), (ACTIONS 9, 1,
       [sym__block_comment]), (ACTIONS 11, 1, [sym__documentation_block_comment]), (ACTIONS 6358,
       1, [anon_sym_RBRACE]), (ACTIONS 6360, 1, [anon_sym_COMMA]), (STATE 2979, 3, [sym_comment,
       sym_documentation_comment, aux_sym__named_formal_parameters_repeat1])]),
     (139883, 9, [(ACTIONS 3, 1, [anon_sym_SLASH_SLASH]), (ACTIONS 5, 1,
       [anon_sym_SLASH_STAR]), (ACTIONS 7, 1, [anon_sym_SLASH_SLASH_SLASH]), (ACTIONS 9, 1,
       [sym__block_comment]), (ACTIONS 11, 1, [sym__documentation_block_comment]), (ACTIONS 6363,
       1, [anon_sym_COMMA]), (ACTIONS 6365, 1, [anon_sym_RPAREN]), (STATE 2745, 1,
       [aux_sym_record_pattern_repeat1]), (STATE 2980, 2, [sym_comment,
       sym_documentation_comment])]),
     (139912, 9, [(ACTIONS 3, 1, [anon_sym_SLASH_SLASH]), (ACTIONS 5, 1,
       [anon_sym_SLASH_STAR]), (ACTIONS 7, 1, [anon_sym_SLASH_SLASH_SLASH]), (ACTIONS 9, 1,
       [sym__block_comment]), (ACTIONS 11, 1, [sym__documentation_block_comment]), (ACTIONS 5528,
       1, [anon_sym_new]), (ACTIONS 6367, 1, [sym_identifier]), (STATE 954, 1,
       [sym__new_builtin]), (STATE 2981, 2, [sym_comment, sym_documentation_comment])]),
     (139941, 8, [(ACTIONS 3, 1, [anon_sym_SLASH_SLASH]), (ACTIONS 5, 1,
       [anon_sym_SLASH_STAR]), (ACTIONS 7, 1, [anon_sym_SLASH_SLASH_SLASH]), (ACTIONS 9, 1,
       [sym__block_comment]), (ACTIONS 11, 1, [sym__documentation_block_comment]), (ACTIONS 6371,
       1, [anon_sym_EQ]), (ACTIONS 6369, 2, [anon_sym_COMMA, anon_sym_RBRACK]), (STATE 2982, 2,
       [sym_comment, sym_documentation_comment])]),
     (139968, 8, [(ACTIONS 3, 1, [anon_sym_SLASH_SLASH]), (ACTIONS 5, 1,
       [anon_sym_SLASH_STAR]), (ACTIONS 7, 1, [anon_sym_SLASH_SLASH_SLASH]), (ACTIONS 9, 1,
       [sym__block_comment]), (ACTIONS 11, 1, [sym__documentation_block_comment]), (ACTIONS 6373,
       1, [anon_sym_COMMA]), (ACTIONS 6376, 1, [anon_sym_RPAREN]), (STATE 2983, 3, [sym_comment,
       sym_documentation_comment, aux_sym__argument_list_repeat1])]),
     (139995, 8, [(ACTIONS 3, 1, [anon_sym_SLASH_SLASH]), (ACTIONS 5, 1,
       [anon_sym_SLASH_STAR]), (ACTIONS 7, 1, [anon_sym_SLASH_SLASH_SLASH]), (ACTIONS 9, 1,
       [sym__block_comment]), (ACTIONS 11, 1, [sym__documentation_block_comment]), (ACTIONS 6378,
       1, [sym_identifier]), (ACTIONS 5540, 2, [anon_sym_COMMA, anon_sym_RPAREN]), (STATE 2984,
       2, [sym_comment, sym_documentation_comment])])]"

lemma small_run_902: "small_run 2978 139827 ts_small_parse_table_902 2985 140022"
  by (simp add: small_simps ts_small_parse_table_902_def)

definition ts_small_parse_table_903 :: "small_group list" where
  "ts_small_parse_table_903 = [
     (140022, 9, [(ACTIONS 3, 1, [anon_sym_SLASH_SLASH]), (ACTIONS 5, 1,
       [anon_sym_SLASH_STAR]), (ACTIONS 7, 1, [anon_sym_SLASH_SLASH_SLASH]), (ACTIONS 9, 1,
       [sym__block_comment]), (ACTIONS 11, 1, [sym__documentation_block_comment]), (ACTIONS 6381,
       1, [anon_sym_COMMA]), (ACTIONS 6383, 1, [anon_sym_RPAREN]), (STATE 2977, 1,
       [aux_sym_record_type_repeat1]), (STATE 2985, 2, [sym_comment,
       sym_documentation_comment])]),
     (140051, 9, [(ACTIONS 3, 1, [anon_sym_SLASH_SLASH]), (ACTIONS 5, 1,
       [anon_sym_SLASH_STAR]), (ACTIONS 7, 1, [anon_sym_SLASH_SLASH_SLASH]), (ACTIONS 9, 1,
       [sym__block_comment]), (ACTIONS 11, 1, [sym__documentation_block_comment]), (ACTIONS 646,
       1, [anon_sym_RBRACE]), (ACTIONS 6116, 1, [anon_sym_COMMA]), (STATE 2819, 1,
       [aux_sym_map_pattern_repeat1]), (STATE 2986, 2, [sym_comment,
       sym_documentation_comment])]),
     (140080, 7, [(ACTIONS 3, 1, [anon_sym_SLASH_SLASH]), (ACTIONS 5, 1,
       [anon_sym_SLASH_STAR]), (ACTIONS 7, 1, [anon_sym_SLASH_SLASH_SLASH]), (ACTIONS 9, 1,
       [sym__block_comment]), (ACTIONS 11, 1, [sym__documentation_block_comment]), (STATE 2987,
       2, [sym_comment, sym_documentation_comment]), (ACTIONS 4413, 3, [anon_sym_this,
       anon_sym_super, sym_identifier])]),
     (140105, 9, [(ACTIONS 3, 1, [anon_sym_SLASH_SLASH]), (ACTIONS 9, 1, [sym__block_comment]),
       (ACTIONS 11, 1, [sym__documentation_block_comment]), (ACTIONS 5165, 1,
       [anon_sym_SLASH_STAR]), (ACTIONS 5167, 1, [anon_sym_SLASH_SLASH_SLASH]), (ACTIONS 6385, 1,
       [anon_sym_LBRACE]), (ACTIONS 6387, 1, [aux_sym__sub_string_test_token1]), (ACTIONS 6389,
       1, [sym_identifier_dollar_escaped]), (STATE 2988, 2, [sym_comment,
       sym_documentation_comment])]),
     (140134, 8, [(ACTIONS 3, 1, [anon_sym_SLASH_SLASH]), (ACTIONS 5, 1,
       [anon_sym_SLASH_STAR]), (ACTIONS 7, 1, [anon_sym_SLASH_SLASH_SLASH]), (ACTIONS 9, 1,
       [sym__block_comment]), (ACTIONS 11, 1, [sym__documentation_block_comment]), (ACTIONS 6391,
       1, [anon_sym_COMMA]), (ACTIONS 6394, 1, [anon_sym_GT]), (STATE 2989, 3, [sym_comment,
       sym_documentation_comment, aux_sym_type_arguments_repeat1])]),
     (140161, 9, [(ACTIONS 3, 1, [anon_sym_SLASH_SLASH]), (ACTIONS 5, 1,
       [anon_sym_SLASH_STAR]), (ACTIONS 7, 1, [anon_sym_SLASH_SLASH_SLASH]), (ACTIONS 9, 1,
       [sym__block_comment]), (ACTIONS 11, 1, [sym__documentation_block_comment]), (ACTIONS 155,
       1, [anon_sym_new]), (ACTIONS 6396, 1, [sym_identifier]), (STATE 3025, 1,
       [sym__new_builtin]), (STATE 2990, 2, [sym_comment, sym_documentation_comment])]),
     (140190, 9, [(ACTIONS 3, 1, [anon_sym_SLASH_SLASH]), (ACTIONS 5, 1,
       [anon_sym_SLASH_STAR]), (ACTIONS 7, 1, [anon_sym_SLASH_SLASH_SLASH]), (ACTIONS 9, 1,
       [sym__block_comment]), (ACTIONS 11, 1, [sym__documentation_block_comment]), (ACTIONS 5552,
       1, [anon_sym_COMMA]), (ACTIONS 6398, 1, [anon_sym_SEMI]), (STATE 2684, 1,
       [aux_sym_initialized_identifier_list_repeat1]), (STATE 2991, 2, [sym_comment,
       sym_documentation_comment])])]"

lemma small_run_903: "small_run 2985 140022 ts_small_parse_table_903 2992 140219"
  by (simp add: small_simps ts_small_parse_table_903_def)

definition ts_small_parse_table_904 :: "small_group list" where
  "ts_small_parse_table_904 = [
     (140219, 7, [(ACTIONS 3, 1, [anon_sym_SLASH_SLASH]), (ACTIONS 5, 1,
       [anon_sym_SLASH_STAR]), (ACTIONS 7, 1, [anon_sym_SLASH_SLASH_SLASH]), (ACTIONS 9, 1,
       [sym__block_comment]), (ACTIONS 11, 1, [sym__documentation_block_comment]), (STATE 2992,
       2, [sym_comment, sym_documentation_comment]), (ACTIONS 5704, 3, [anon_sym_RBRACE,
       anon_sym_COMMA, anon_sym_SEMI])]),
     (140244, 9, [(ACTIONS 3, 1, [anon_sym_SLASH_SLASH]), (ACTIONS 5, 1,
       [anon_sym_SLASH_STAR]), (ACTIONS 7, 1, [anon_sym_SLASH_SLASH_SLASH]), (ACTIONS 9, 1,
       [sym__block_comment]), (ACTIONS 11, 1, [sym__documentation_block_comment]), (ACTIONS 5793,
       1, [anon_sym_COMMA]), (ACTIONS 6400, 1, [anon_sym_GT]), (STATE 2761, 1,
       [aux_sym_type_parameters_repeat1]), (STATE 2993, 2, [sym_comment,
       sym_documentation_comment])]),
     (140273, 9, [(ACTIONS 3, 1, [anon_sym_SLASH_SLASH]), (ACTIONS 5, 1,
       [anon_sym_SLASH_STAR]), (ACTIONS 7, 1, [anon_sym_SLASH_SLASH_SLASH]), (ACTIONS 9, 1,
       [sym__block_comment]), (ACTIONS 11, 1, [sym__documentation_block_comment]), (ACTIONS 3398,
       1, [anon_sym_LPAREN]), (ACTIONS 6402, 1, [anon_sym_DOT]), (STATE 3548, 1,
       [sym_arguments]), (STATE 2994, 2, [sym_comment, sym_documentation_comment])]),
     (140302, 9, [(ACTIONS 3, 1, [anon_sym_SLASH_SLASH]), (ACTIONS 5, 1,
       [anon_sym_SLASH_STAR]), (ACTIONS 7, 1, [anon_sym_SLASH_SLASH_SLASH]), (ACTIONS 9, 1,
       [sym__block_comment]), (ACTIONS 11, 1, [sym__documentation_block_comment]), (ACTIONS 4833,
       1, [anon_sym_LBRACE]), (ACTIONS 6404, 1, [anon_sym_EQ_GT]), (STATE 448, 1, [sym_block]),
       (STATE 2995, 2, [sym_comment, sym_documentation_comment])]),
     (140331, 9, [(ACTIONS 3, 1, [anon_sym_SLASH_SLASH]), (ACTIONS 5, 1,
       [anon_sym_SLASH_STAR]), (ACTIONS 7, 1, [anon_sym_SLASH_SLASH_SLASH]), (ACTIONS 9, 1,
       [sym__block_comment]), (ACTIONS 11, 1, [sym__documentation_block_comment]), (ACTIONS 155,
       1, [anon_sym_new]), (ACTIONS 6406, 1, [sym_identifier]), (STATE 3225, 1,
       [sym__new_builtin]), (STATE 2996, 2, [sym_comment, sym_documentation_comment])]),
     (140360, 9, [(ACTIONS 3, 1, [anon_sym_SLASH_SLASH]), (ACTIONS 5, 1,
       [anon_sym_SLASH_STAR]), (ACTIONS 7, 1, [anon_sym_SLASH_SLASH_SLASH]), (ACTIONS 9, 1,
       [sym__block_comment]), (ACTIONS 11, 1, [sym__documentation_block_comment]), (ACTIONS 6408,
       1, [anon_sym_RBRACE]), (ACTIONS 6410, 1, [anon_sym_COMMA]), (STATE 2773, 1,
       [aux_sym__named_formal_parameters_repeat1]), (STATE 2997, 2, [sym_comment,
       sym_documentation_comment])]),
     (140389, 7, [(ACTIONS 3, 1, [anon_sym_SLASH_SLASH]), (ACTIONS 5, 1,
       [anon_sym_SLASH_STAR]), (ACTIONS 7, 1, [anon_sym_SLASH_SLASH_SLASH]), (ACTIONS 9, 1,
       [sym__block_comment]), (ACTIONS 11, 1, [sym__documentation_block_comment]), (STATE 2998,
       2, [sym_comment, sym_documentation_comment]), (ACTIONS 6412, 3, [anon_sym_RBRACE,
       anon_sym_COMMA, anon_sym_SEMI])])]"

lemma small_run_904: "small_run 2992 140219 ts_small_parse_table_904 2999 140414"
  by (simp add: small_simps ts_small_parse_table_904_def)

definition ts_small_parse_table_905 :: "small_group list" where
  "ts_small_parse_table_905 = [
     (140414, 9, [(ACTIONS 3, 1, [anon_sym_SLASH_SLASH]), (ACTIONS 5, 1,
       [anon_sym_SLASH_STAR]), (ACTIONS 7, 1, [anon_sym_SLASH_SLASH_SLASH]), (ACTIONS 9, 1,
       [sym__block_comment]), (ACTIONS 11, 1, [sym__documentation_block_comment]), (ACTIONS 155,
       1, [anon_sym_new]), (ACTIONS 6414, 1, [sym_identifier]), (STATE 3027, 1,
       [sym__new_builtin]), (STATE 2999, 2, [sym_comment, sym_documentation_comment])]),
     (140443, 9, [(ACTIONS 3, 1, [anon_sym_SLASH_SLASH]), (ACTIONS 5, 1,
       [anon_sym_SLASH_STAR]), (ACTIONS 7, 1, [anon_sym_SLASH_SLASH_SLASH]), (ACTIONS 9, 1,
       [sym__block_comment]), (ACTIONS 11, 1, [sym__documentation_block_comment]), (ACTIONS 4152,
       1, [anon_sym_RBRACE]), (ACTIONS 6416, 1, [anon_sym_COMMA]), (STATE 2734, 1,
       [aux_sym_record_type_repeat2]), (STATE 3000, 2, [sym_comment,
       sym_documentation_comment])]),
     (140472, 9, [(ACTIONS 3, 1, [anon_sym_SLASH_SLASH]), (ACTIONS 5, 1,
       [anon_sym_SLASH_STAR]), (ACTIONS 7, 1, [anon_sym_SLASH_SLASH_SLASH]), (ACTIONS 9, 1,
       [sym__block_comment]), (ACTIONS 11, 1, [sym__documentation_block_comment]), (ACTIONS 4955,
       1, [anon_sym_class]), (ACTIONS 4961, 1, [anon_sym_mixin]), (STATE 3227, 1, [sym_mixin]),
       (STATE 3001, 2, [sym_comment, sym_documentation_comment])]),
     (140501, 9, [(ACTIONS 3, 1, [anon_sym_SLASH_SLASH]), (ACTIONS 5, 1,
       [anon_sym_SLASH_STAR]), (ACTIONS 7, 1, [anon_sym_SLASH_SLASH_SLASH]), (ACTIONS 9, 1,
       [sym__block_comment]), (ACTIONS 11, 1, [sym__documentation_block_comment]), (ACTIONS 4113,
       1, [anon_sym_RBRACE]), (ACTIONS 6418, 1, [anon_sym_COMMA]), (STATE 2873, 1,
       [aux_sym_named_parameter_types_repeat1]), (STATE 3002, 2, [sym_comment,
       sym_documentation_comment])]),
     (140530, 7, [(ACTIONS 3, 1, [anon_sym_SLASH_SLASH]), (ACTIONS 5, 1,
       [anon_sym_SLASH_STAR]), (ACTIONS 7, 1, [anon_sym_SLASH_SLASH_SLASH]), (ACTIONS 9, 1,
       [sym__block_comment]), (ACTIONS 11, 1, [sym__documentation_block_comment]), (STATE 3003,
       2, [sym_comment, sym_documentation_comment]), (ACTIONS 6420, 3, [anon_sym_RBRACE,
       anon_sym_COMMA, anon_sym_SEMI])]),
     (140555, 9, [(ACTIONS 3, 1, [anon_sym_SLASH_SLASH]), (ACTIONS 5, 1,
       [anon_sym_SLASH_STAR]), (ACTIONS 7, 1, [anon_sym_SLASH_SLASH_SLASH]), (ACTIONS 9, 1,
       [sym__block_comment]), (ACTIONS 11, 1, [sym__documentation_block_comment]), (ACTIONS 4248,
       1, [anon_sym_RBRACK]), (ACTIONS 6422, 1, [anon_sym_COMMA]), (STATE 2630, 1,
       [aux_sym_parameter_type_list_repeat1]), (STATE 3004, 2, [sym_comment,
       sym_documentation_comment])]),
     (140584, 7, [(ACTIONS 3, 1, [anon_sym_SLASH_SLASH]), (ACTIONS 5, 1,
       [anon_sym_SLASH_STAR]), (ACTIONS 7, 1, [anon_sym_SLASH_SLASH_SLASH]), (ACTIONS 9, 1,
       [sym__block_comment]), (ACTIONS 11, 1, [sym__documentation_block_comment]), (STATE 3005,
       2, [sym_comment, sym_documentation_comment]), (ACTIONS 5658, 3, [anon_sym_COMMA,
       anon_sym_RBRACK, anon_sym_RPAREN])])]"

lemma small_run_905: "small_run 2999 140414 ts_small_parse_table_905 3006 140609"
  by (simp add: small_simps ts_small_parse_table_905_def)

definition ts_small_parse_table_906 :: "small_group list" where
  "ts_small_parse_table_906 = [
     (140609, 9, [(ACTIONS 3, 1, [anon_sym_SLASH_SLASH]), (ACTIONS 5, 1,
       [anon_sym_SLASH_STAR]), (ACTIONS 7, 1, [anon_sym_SLASH_SLASH_SLASH]), (ACTIONS 9, 1,
       [sym__block_comment]), (ACTIONS 11, 1, [sym__documentation_block_comment]), (ACTIONS 3398,
       1, [anon_sym_LPAREN]), (ACTIONS 6424, 1, [anon_sym_DOT]), (STATE 943, 1, [sym_arguments]),
       (STATE 3006, 2, [sym_comment, sym_documentation_comment])]),
     (140638, 8, [(ACTIONS 3, 1, [anon_sym_SLASH_SLASH]), (ACTIONS 5, 1,
       [anon_sym_SLASH_STAR]), (ACTIONS 7, 1, [anon_sym_SLASH_SLASH_SLASH]), (ACTIONS 9, 1,
       [sym__block_comment]), (ACTIONS 11, 1, [sym__documentation_block_comment]), (ACTIONS 6426,
       1, [sym_identifier]), (STATE 1206, 1, [sym_scoped_identifier]), (STATE 3007, 2,
       [sym_comment, sym_documentation_comment])]),
     (140664, 7, [(ACTIONS 3, 1, [anon_sym_SLASH_SLASH]), (ACTIONS 5, 1,
       [anon_sym_SLASH_STAR]), (ACTIONS 7, 1, [anon_sym_SLASH_SLASH_SLASH]), (ACTIONS 9, 1,
       [sym__block_comment]), (ACTIONS 11, 1, [sym__documentation_block_comment]), (ACTIONS 6428,
       2, [anon_sym_COMMA, anon_sym_GT]), (STATE 3008, 2, [sym_comment,
       sym_documentation_comment])]),
     (140688, 8, [(ACTIONS 3, 1, [anon_sym_SLASH_SLASH]), (ACTIONS 5, 1,
       [anon_sym_SLASH_STAR]), (ACTIONS 7, 1, [anon_sym_SLASH_SLASH_SLASH]), (ACTIONS 9, 1,
       [sym__block_comment]), (ACTIONS 11, 1, [sym__documentation_block_comment]), (ACTIONS 2419,
       1, [anon_sym_LBRACK]), (STATE 1102, 1, [sym_index_selector]), (STATE 3009, 2,
       [sym_comment, sym_documentation_comment])]),
     (140714, 8, [(ACTIONS 3, 1, [anon_sym_SLASH_SLASH]), (ACTIONS 5, 1,
       [anon_sym_SLASH_STAR]), (ACTIONS 7, 1, [anon_sym_SLASH_SLASH_SLASH]), (ACTIONS 9, 1,
       [sym__block_comment]), (ACTIONS 11, 1, [sym__documentation_block_comment]), (ACTIONS 6430,
       1, [anon_sym_LPAREN]), (STATE 3565, 1, [sym_parenthesized_expression]), (STATE 3010, 2,
       [sym_comment, sym_documentation_comment])]),
     (140740, 8, [(ACTIONS 3, 1, [anon_sym_SLASH_SLASH]), (ACTIONS 5, 1,
       [anon_sym_SLASH_STAR]), (ACTIONS 7, 1, [anon_sym_SLASH_SLASH_SLASH]), (ACTIONS 9, 1,
       [sym__block_comment]), (ACTIONS 11, 1, [sym__documentation_block_comment]), (ACTIONS 6430,
       1, [anon_sym_LPAREN]), (STATE 3561, 1, [sym_parenthesized_expression]), (STATE 3011, 2,
       [sym_comment, sym_documentation_comment])]),
     (140766, 8, [(ACTIONS 3, 1, [anon_sym_SLASH_SLASH]), (ACTIONS 5, 1,
       [anon_sym_SLASH_STAR]), (ACTIONS 7, 1, [anon_sym_SLASH_SLASH_SLASH]), (ACTIONS 9, 1,
       [sym__block_comment]), (ACTIONS 11, 1, [sym__documentation_block_comment]), (ACTIONS 6430,
       1, [anon_sym_LPAREN]), (STATE 3554, 1, [sym_parenthesized_expression]), (STATE 3012, 2,
       [sym_comment, sym_documentation_comment])]),
     (140792, 7, [(ACTIONS 3, 1, [anon_sym_SLASH_SLASH]), (ACTIONS 5, 1,
       [anon_sym_SLASH_STAR]), (ACTIONS 7, 1, [anon_sym_SLASH_SLASH_SLASH]), (ACTIONS 9, 1,
       [sym__block_comment]), (ACTIONS 11, 1, [sym__documentation_block_comment]), (ACTIONS 6169,
       2, [anon_sym_RBRACE, anon_sym_COMMA]), (STATE 3013, 2, [sym_comment,
       sym_documentation_comment])])]"

lemma small_run_906: "small_run 3006 140609 ts_small_parse_table_906 3014 140816"
  by (simp add: small_simps ts_small_parse_table_906_def)

definition ts_small_parse_table_907 :: "small_group list" where
  "ts_small_parse_table_907 = [
     (140816, 7, [(ACTIONS 3, 1, [anon_sym_SLASH_SLASH]), (ACTIONS 5, 1,
       [anon_sym_SLASH_STAR]), (ACTIONS 7, 1, [anon_sym_SLASH_SLASH_SLASH]), (ACTIONS 9, 1,
       [sym__block_comment]), (ACTIONS 11, 1, [sym__documentation_block_comment]), (ACTIONS 6432,
       2, [anon_sym_COMMA, anon_sym_RPAREN]), (STATE 3014, 2, [sym_comment,
       sym_documentation_comment])]),
     (140840, 7, [(ACTIONS 3, 1, [anon_sym_SLASH_SLASH]), (ACTIONS 5, 1,
       [anon_sym_SLASH_STAR]), (ACTIONS 7, 1, [anon_sym_SLASH_SLASH_SLASH]), (ACTIONS 9, 1,
       [sym__block_comment]), (ACTIONS 11, 1, [sym__documentation_block_comment]), (ACTIONS 648,
       2, [anon_sym_RBRACE, anon_sym_COMMA]), (STATE 3015, 2, [sym_comment,
       sym_documentation_comment])]),
     (140864, 7, [(ACTIONS 3, 1, [anon_sym_SLASH_SLASH]), (ACTIONS 5, 1,
       [anon_sym_SLASH_STAR]), (ACTIONS 7, 1, [anon_sym_SLASH_SLASH_SLASH]), (ACTIONS 9, 1,
       [sym__block_comment]), (ACTIONS 11, 1, [sym__documentation_block_comment]), (ACTIONS 6434,
       2, [anon_sym_RBRACE, anon_sym_COMMA]), (STATE 3016, 2, [sym_comment,
       sym_documentation_comment])]),
     (140888, 8, [(ACTIONS 3, 1, [anon_sym_SLASH_SLASH]), (ACTIONS 5, 1,
       [anon_sym_SLASH_STAR]), (ACTIONS 7, 1, [anon_sym_SLASH_SLASH_SLASH]), (ACTIONS 9, 1,
       [sym__block_comment]), (ACTIONS 11, 1, [sym__documentation_block_comment]), (ACTIONS 2001,
       1, [anon_sym_LPAREN]), (STATE 927, 1, [sym_arguments]), (STATE 3017, 2, [sym_comment,
       sym_documentation_comment])]),
     (140914, 7, [(ACTIONS 3, 1, [anon_sym_SLASH_SLASH]), (ACTIONS 5, 1,
       [anon_sym_SLASH_STAR]), (ACTIONS 7, 1, [anon_sym_SLASH_SLASH_SLASH]), (ACTIONS 9, 1,
       [sym__block_comment]), (ACTIONS 11, 1, [sym__documentation_block_comment]), (ACTIONS 6394,
       2, [anon_sym_COMMA, anon_sym_GT]), (STATE 3018, 2, [sym_comment,
       sym_documentation_comment])]),
     (140938, 8, [(ACTIONS 3, 1, [anon_sym_SLASH_SLASH]), (ACTIONS 5, 1,
       [anon_sym_SLASH_STAR]), (ACTIONS 7, 1, [anon_sym_SLASH_SLASH_SLASH]), (ACTIONS 9, 1,
       [sym__block_comment]), (ACTIONS 11, 1, [sym__documentation_block_comment]), (ACTIONS 6436,
       1, [anon_sym_new]), (STATE 2315, 1, [sym__new_builtin]), (STATE 3019, 2, [sym_comment,
       sym_documentation_comment])]),
     (140964, 8, [(ACTIONS 3, 1, [anon_sym_SLASH_SLASH]), (ACTIONS 5, 1,
       [anon_sym_SLASH_STAR]), (ACTIONS 7, 1, [anon_sym_SLASH_SLASH_SLASH]), (ACTIONS 9, 1,
       [sym__block_comment]), (ACTIONS 11, 1, [sym__documentation_block_comment]), (ACTIONS 6438,
       1, [anon_sym_LBRACE]), (STATE 1776, 1, [sym_extension_body]), (STATE 3020, 2,
       [sym_comment, sym_documentation_comment])]),
     (140990, 8, [(ACTIONS 3, 1, [anon_sym_SLASH_SLASH]), (ACTIONS 5, 1,
       [anon_sym_SLASH_STAR]), (ACTIONS 7, 1, [anon_sym_SLASH_SLASH_SLASH]), (ACTIONS 9, 1,
       [sym__block_comment]), (ACTIONS 11, 1, [sym__documentation_block_comment]), (ACTIONS 6440,
       1, [anon_sym_RPAREN]), (ACTIONS 6442, 1, [anon_sym_EQ_EQ]), (STATE 3021, 2, [sym_comment,
       sym_documentation_comment])])]"

lemma small_run_907: "small_run 3014 140816 ts_small_parse_table_907 3022 141016"
  by (simp add: small_simps ts_small_parse_table_907_def)

definition ts_small_parse_table_908 :: "small_group list" where
  "ts_small_parse_table_908 = [
     (141016, 8, [(ACTIONS 3, 1, [anon_sym_SLASH_SLASH]), (ACTIONS 5, 1,
       [anon_sym_SLASH_STAR]), (ACTIONS 7, 1, [anon_sym_SLASH_SLASH_SLASH]), (ACTIONS 9, 1,
       [sym__block_comment]), (ACTIONS 11, 1, [sym__documentation_block_comment]), (ACTIONS 4833,
       1, [anon_sym_LBRACE]), (STATE 448, 1, [sym_block]), (STATE 3022, 2, [sym_comment,
       sym_documentation_comment])]),
     (141042, 8, [(ACTIONS 3, 1, [anon_sym_SLASH_SLASH]), (ACTIONS 5, 1,
       [anon_sym_SLASH_STAR]), (ACTIONS 7, 1, [anon_sym_SLASH_SLASH_SLASH]), (ACTIONS 9, 1,
       [sym__block_comment]), (ACTIONS 11, 1, [sym__documentation_block_comment]), (ACTIONS 6438,
       1, [anon_sym_LBRACE]), (STATE 1778, 1, [sym_extension_body]), (STATE 3023, 2,
       [sym_comment, sym_documentation_comment])]),
     (141068, 7, [(ACTIONS 3, 1, [anon_sym_SLASH_SLASH]), (ACTIONS 5, 1,
       [anon_sym_SLASH_STAR]), (ACTIONS 7, 1, [anon_sym_SLASH_SLASH_SLASH]), (ACTIONS 9, 1,
       [sym__block_comment]), (ACTIONS 11, 1, [sym__documentation_block_comment]), (ACTIONS 6444,
       2, [anon_sym_RBRACE, anon_sym_COMMA]), (STATE 3024, 2, [sym_comment,
       sym_documentation_comment])]),
     (141092, 8, [(ACTIONS 3, 1, [anon_sym_SLASH_SLASH]), (ACTIONS 5, 1,
       [anon_sym_SLASH_STAR]), (ACTIONS 7, 1, [anon_sym_SLASH_SLASH_SLASH]), (ACTIONS 9, 1,
       [sym__block_comment]), (ACTIONS 11, 1, [sym__documentation_block_comment]), (ACTIONS 3398,
       1, [anon_sym_LPAREN]), (STATE 2696, 1, [sym_arguments]), (STATE 3025, 2, [sym_comment,
       sym_documentation_comment])]),
     (141118, 8, [(ACTIONS 3, 1, [anon_sym_SLASH_SLASH]), (ACTIONS 5, 1,
       [anon_sym_SLASH_STAR]), (ACTIONS 7, 1, [anon_sym_SLASH_SLASH_SLASH]), (ACTIONS 9, 1,
       [sym__block_comment]), (ACTIONS 11, 1, [sym__documentation_block_comment]), (ACTIONS 6446,
       1, [sym_identifier]), (ACTIONS 6448, 1, [anon_sym_class]), (STATE 3026, 2, [sym_comment,
       sym_documentation_comment])]),
     (141144, 8, [(ACTIONS 3, 1, [anon_sym_SLASH_SLASH]), (ACTIONS 5, 1,
       [anon_sym_SLASH_STAR]), (ACTIONS 7, 1, [anon_sym_SLASH_SLASH_SLASH]), (ACTIONS 9, 1,
       [sym__block_comment]), (ACTIONS 11, 1, [sym__documentation_block_comment]), (ACTIONS 3398,
       1, [anon_sym_LPAREN]), (STATE 2703, 1, [sym_arguments]), (STATE 3027, 2, [sym_comment,
       sym_documentation_comment])]),
     (141170, 7, [(ACTIONS 3, 1, [anon_sym_SLASH_SLASH]), (ACTIONS 5, 1,
       [anon_sym_SLASH_STAR]), (ACTIONS 7, 1, [anon_sym_SLASH_SLASH_SLASH]), (ACTIONS 9, 1,
       [sym__block_comment]), (ACTIONS 11, 1, [sym__documentation_block_comment]), (ACTIONS 5459,
       2, [anon_sym_COMMA, anon_sym_GT]), (STATE 3028, 2, [sym_comment,
       sym_documentation_comment])]),
     (141194, 7, [(ACTIONS 3, 1, [anon_sym_SLASH_SLASH]), (ACTIONS 5, 1,
       [anon_sym_SLASH_STAR]), (ACTIONS 7, 1, [anon_sym_SLASH_SLASH_SLASH]), (ACTIONS 9, 1,
       [sym__block_comment]), (ACTIONS 11, 1, [sym__documentation_block_comment]), (ACTIONS 6450,
       2, [anon_sym_RBRACE, anon_sym_COMMA]), (STATE 3029, 2, [sym_comment,
       sym_documentation_comment])])]"

lemma small_run_908: "small_run 3022 141016 ts_small_parse_table_908 3030 141218"
  by (simp add: small_simps ts_small_parse_table_908_def)

definition ts_small_parse_table_909 :: "small_group list" where
  "ts_small_parse_table_909 = [
     (141218, 7, [(ACTIONS 3, 1, [anon_sym_SLASH_SLASH]), (ACTIONS 5, 1,
       [anon_sym_SLASH_STAR]), (ACTIONS 7, 1, [anon_sym_SLASH_SLASH_SLASH]), (ACTIONS 9, 1,
       [sym__block_comment]), (ACTIONS 11, 1, [sym__documentation_block_comment]), (ACTIONS 6376,
       2, [anon_sym_COMMA, anon_sym_RPAREN]), (STATE 3030, 2, [sym_comment,
       sym_documentation_comment])]),
     (141242, 7, [(ACTIONS 3, 1, [anon_sym_SLASH_SLASH]), (ACTIONS 5, 1,
       [anon_sym_SLASH_STAR]), (ACTIONS 7, 1, [anon_sym_SLASH_SLASH_SLASH]), (ACTIONS 9, 1,
       [sym__block_comment]), (ACTIONS 11, 1, [sym__documentation_block_comment]), (ACTIONS 6352,
       2, [anon_sym_COMMA, anon_sym_SEMI]), (STATE 3031, 2, [sym_comment,
       sym_documentation_comment])]),
     (141266, 8, [(ACTIONS 3, 1, [anon_sym_SLASH_SLASH]), (ACTIONS 5, 1,
       [anon_sym_SLASH_STAR]), (ACTIONS 7, 1, [anon_sym_SLASH_SLASH_SLASH]), (ACTIONS 9, 1,
       [sym__block_comment]), (ACTIONS 11, 1, [sym__documentation_block_comment]), (ACTIONS 6452,
       1, [sym_identifier]), (STATE 1791, 1, [sym_mixin_application_class]), (STATE 3032, 2,
       [sym_comment, sym_documentation_comment])]),
     (141292, 8, [(ACTIONS 3, 1, [anon_sym_SLASH_SLASH]), (ACTIONS 5, 1,
       [anon_sym_SLASH_STAR]), (ACTIONS 7, 1, [anon_sym_SLASH_SLASH_SLASH]), (ACTIONS 9, 1,
       [sym__block_comment]), (ACTIONS 11, 1, [sym__documentation_block_comment]), (ACTIONS 3398,
       1, [anon_sym_LPAREN]), (STATE 2998, 1, [sym_arguments]), (STATE 3033, 2, [sym_comment,
       sym_documentation_comment])]),
     (141318, 7, [(ACTIONS 3, 1, [anon_sym_SLASH_SLASH]), (ACTIONS 5, 1,
       [anon_sym_SLASH_STAR]), (ACTIONS 7, 1, [anon_sym_SLASH_SLASH_SLASH]), (ACTIONS 9, 1,
       [sym__block_comment]), (ACTIONS 11, 1, [sym__documentation_block_comment]), (ACTIONS 6454,
       2, [anon_sym_COMMA, anon_sym_SEMI]), (STATE 3034, 2, [sym_comment,
       sym_documentation_comment])]),
     (141342, 7, [(ACTIONS 3, 1, [anon_sym_SLASH_SLASH]), (ACTIONS 5, 1,
       [anon_sym_SLASH_STAR]), (ACTIONS 7, 1, [anon_sym_SLASH_SLASH_SLASH]), (ACTIONS 9, 1,
       [sym__block_comment]), (ACTIONS 11, 1, [sym__documentation_block_comment]), (ACTIONS 6456,
       2, [anon_sym_COMMA, anon_sym_GT]), (STATE 3035, 2, [sym_comment,
       sym_documentation_comment])]),
     (141366, 7, [(ACTIONS 3, 1, [anon_sym_SLASH_SLASH]), (ACTIONS 5, 1,
       [anon_sym_SLASH_STAR]), (ACTIONS 7, 1, [anon_sym_SLASH_SLASH_SLASH]), (ACTIONS 9, 1,
       [sym__block_comment]), (ACTIONS 11, 1, [sym__documentation_block_comment]), (ACTIONS 6458,
       2, [anon_sym_COMMA, anon_sym_GT]), (STATE 3036, 2, [sym_comment,
       sym_documentation_comment])]),
     (141390, 8, [(ACTIONS 3, 1, [anon_sym_SLASH_SLASH]), (ACTIONS 5, 1,
       [anon_sym_SLASH_STAR]), (ACTIONS 7, 1, [anon_sym_SLASH_SLASH_SLASH]), (ACTIONS 9, 1,
       [sym__block_comment]), (ACTIONS 11, 1, [sym__documentation_block_comment]), (ACTIONS 474,
       1, [anon_sym_SEMI]), (STATE 1953, 1, [sym__semicolon]), (STATE 3037, 2, [sym_comment,
       sym_documentation_comment])])]"

lemma small_run_909: "small_run 3030 141218 ts_small_parse_table_909 3038 141416"
  by (simp add: small_simps ts_small_parse_table_909_def)

definition ts_small_parse_table_910 :: "small_group list" where
  "ts_small_parse_table_910 = [
     (141416, 7, [(ACTIONS 3, 1, [anon_sym_SLASH_SLASH]), (ACTIONS 5, 1,
       [anon_sym_SLASH_STAR]), (ACTIONS 7, 1, [anon_sym_SLASH_SLASH_SLASH]), (ACTIONS 9, 1,
       [sym__block_comment]), (ACTIONS 11, 1, [sym__documentation_block_comment]), (ACTIONS 5713,
       2, [anon_sym_RBRACE, anon_sym_COMMA]), (STATE 3038, 2, [sym_comment,
       sym_documentation_comment])]),
     (141440, 8, [(ACTIONS 3, 1, [anon_sym_SLASH_SLASH]), (ACTIONS 5, 1,
       [anon_sym_SLASH_STAR]), (ACTIONS 7, 1, [anon_sym_SLASH_SLASH_SLASH]), (ACTIONS 9, 1,
       [sym__block_comment]), (ACTIONS 11, 1, [sym__documentation_block_comment]), (ACTIONS 5323,
       1, [anon_sym_native]), (ACTIONS 6460, 1, [anon_sym_EQ]), (STATE 3039, 2, [sym_comment,
       sym_documentation_comment])]),
     (141466, 7, [(ACTIONS 3, 1, [anon_sym_SLASH_SLASH]), (ACTIONS 5, 1,
       [anon_sym_SLASH_STAR]), (ACTIONS 7, 1, [anon_sym_SLASH_SLASH_SLASH]), (ACTIONS 9, 1,
       [sym__block_comment]), (ACTIONS 11, 1, [sym__documentation_block_comment]), (ACTIONS 6358,
       2, [anon_sym_RBRACE, anon_sym_COMMA]), (STATE 3040, 2, [sym_comment,
       sym_documentation_comment])]),
     (141490, 7, [(ACTIONS 3, 1, [anon_sym_SLASH_SLASH]), (ACTIONS 5, 1,
       [anon_sym_SLASH_STAR]), (ACTIONS 7, 1, [anon_sym_SLASH_SLASH_SLASH]), (ACTIONS 9, 1,
       [sym__block_comment]), (ACTIONS 11, 1, [sym__documentation_block_comment]), (ACTIONS 6462,
       2, [anon_sym_COMMA, anon_sym_RBRACK]), (STATE 3041, 2, [sym_comment,
       sym_documentation_comment])]),
     (141514, 8, [(ACTIONS 3, 1, [anon_sym_SLASH_SLASH]), (ACTIONS 5, 1,
       [anon_sym_SLASH_STAR]), (ACTIONS 7, 1, [anon_sym_SLASH_SLASH_SLASH]), (ACTIONS 9, 1,
       [sym__block_comment]), (ACTIONS 11, 1, [sym__documentation_block_comment]), (ACTIONS 4971,
       1, [anon_sym_LBRACE]), (STATE 1786, 1, [sym_enum_body]), (STATE 3042, 2, [sym_comment,
       sym_documentation_comment])]),
     (141540, 8, [(ACTIONS 3, 1, [anon_sym_SLASH_SLASH]), (ACTIONS 5, 1,
       [anon_sym_SLASH_STAR]), (ACTIONS 7, 1, [anon_sym_SLASH_SLASH_SLASH]), (ACTIONS 9, 1,
       [sym__block_comment]), (ACTIONS 11, 1, [sym__documentation_block_comment]), (ACTIONS 6464,
       1, [sym_identifier]), (STATE 3302, 1, [sym_identifier_list]), (STATE 3043, 2,
       [sym_comment, sym_documentation_comment])]),
     (141566, 8, [(ACTIONS 3, 1, [anon_sym_SLASH_SLASH]), (ACTIONS 5, 1,
       [anon_sym_SLASH_STAR]), (ACTIONS 7, 1, [anon_sym_SLASH_SLASH_SLASH]), (ACTIONS 9, 1,
       [sym__block_comment]), (ACTIONS 11, 1, [sym__documentation_block_comment]), (ACTIONS 5822,
       1, [sym_identifier]), (STATE 3241, 1, [sym_dotted_identifier_list]), (STATE 3044, 2,
       [sym_comment, sym_documentation_comment])]),
     (141592, 8, [(ACTIONS 3, 1, [anon_sym_SLASH_SLASH]), (ACTIONS 5, 1,
       [anon_sym_SLASH_STAR]), (ACTIONS 7, 1, [anon_sym_SLASH_SLASH_SLASH]), (ACTIONS 9, 1,
       [sym__block_comment]), (ACTIONS 11, 1, [sym__documentation_block_comment]), (ACTIONS 6466,
       1, [sym_identifier]), (STATE 1371, 1, [sym_scoped_identifier]), (STATE 3045, 2,
       [sym_comment, sym_documentation_comment])])]"

lemma small_run_910: "small_run 3038 141416 ts_small_parse_table_910 3046 141618"
  by (simp add: small_simps ts_small_parse_table_910_def)

definition ts_small_parse_table_911 :: "small_group list" where
  "ts_small_parse_table_911 = [
     (141618, 8, [(ACTIONS 3, 1, [anon_sym_SLASH_SLASH]), (ACTIONS 5, 1,
       [anon_sym_SLASH_STAR]), (ACTIONS 7, 1, [anon_sym_SLASH_SLASH_SLASH]), (ACTIONS 9, 1,
       [sym__block_comment]), (ACTIONS 11, 1, [sym__documentation_block_comment]), (ACTIONS 474,
       1, [anon_sym_SEMI]), (STATE 447, 1, [sym__semicolon]), (STATE 3046, 2, [sym_comment,
       sym_documentation_comment])]),
     (141644, 8, [(ACTIONS 3, 1, [anon_sym_SLASH_SLASH]), (ACTIONS 5, 1,
       [anon_sym_SLASH_STAR]), (ACTIONS 7, 1, [anon_sym_SLASH_SLASH_SLASH]), (ACTIONS 9, 1,
       [sym__block_comment]), (ACTIONS 11, 1, [sym__documentation_block_comment]), (ACTIONS 4578,
       1, [anon_sym_LBRACE]), (STATE 1731, 1, [sym_class_body]), (STATE 3047, 2, [sym_comment,
       sym_documentation_comment])]),
     (141670, 7, [(ACTIONS 3, 1, [anon_sym_SLASH_SLASH]), (ACTIONS 5, 1,
       [anon_sym_SLASH_STAR]), (ACTIONS 7, 1, [anon_sym_SLASH_SLASH_SLASH]), (ACTIONS 9, 1,
       [sym__block_comment]), (ACTIONS 11, 1, [sym__documentation_block_comment]), (ACTIONS 6335,
       2, [anon_sym_COMMA, anon_sym_RBRACK]), (STATE 3048, 2, [sym_comment,
       sym_documentation_comment])]),
     (141694, 8, [(ACTIONS 3, 1, [anon_sym_SLASH_SLASH]), (ACTIONS 5, 1,
       [anon_sym_SLASH_STAR]), (ACTIONS 7, 1, [anon_sym_SLASH_SLASH_SLASH]), (ACTIONS 9, 1,
       [sym__block_comment]), (ACTIONS 11, 1, [sym__documentation_block_comment]), (ACTIONS 474,
       1, [anon_sym_SEMI]), (STATE 1954, 1, [sym__semicolon]), (STATE 3049, 2, [sym_comment,
       sym_documentation_comment])]),
     (141720, 8, [(ACTIONS 3, 1, [anon_sym_SLASH_SLASH]), (ACTIONS 5, 1,
       [anon_sym_SLASH_STAR]), (ACTIONS 7, 1, [anon_sym_SLASH_SLASH_SLASH]), (ACTIONS 9, 1,
       [sym__block_comment]), (ACTIONS 11, 1, [sym__documentation_block_comment]), (ACTIONS 2001,
       1, [anon_sym_LPAREN]), (STATE 1000, 1, [sym_arguments]), (STATE 3050, 2, [sym_comment,
       sym_documentation_comment])]),
     (141746, 7, [(ACTIONS 3, 1, [anon_sym_SLASH_SLASH]), (ACTIONS 5, 1,
       [anon_sym_SLASH_STAR]), (ACTIONS 7, 1, [anon_sym_SLASH_SLASH_SLASH]), (ACTIONS 9, 1,
       [sym__block_comment]), (ACTIONS 11, 1, [sym__documentation_block_comment]), (ACTIONS 6468,
       2, [anon_sym_COMMA, anon_sym_RPAREN]), (STATE 3051, 2, [sym_comment,
       sym_documentation_comment])]),
     (141770, 8, [(ACTIONS 3, 1, [anon_sym_SLASH_SLASH]), (ACTIONS 5, 1,
       [anon_sym_SLASH_STAR]), (ACTIONS 7, 1, [anon_sym_SLASH_SLASH_SLASH]), (ACTIONS 9, 1,
       [sym__block_comment]), (ACTIONS 11, 1, [sym__documentation_block_comment]), (ACTIONS 2421,
       1, [anon_sym_LPAREN]), (STATE 1136, 1, [sym_arguments]), (STATE 3052, 2, [sym_comment,
       sym_documentation_comment])]),
     (141796, 8, [(ACTIONS 3, 1, [anon_sym_SLASH_SLASH]), (ACTIONS 5, 1,
       [anon_sym_SLASH_STAR]), (ACTIONS 7, 1, [anon_sym_SLASH_SLASH_SLASH]), (ACTIONS 9, 1,
       [sym__block_comment]), (ACTIONS 11, 1, [sym__documentation_block_comment]), (ACTIONS 6446,
       1, [sym_identifier]), (ACTIONS 6470, 1, [anon_sym_class]), (STATE 3053, 2, [sym_comment,
       sym_documentation_comment])])]"

lemma small_run_911: "small_run 3046 141618 ts_small_parse_table_911 3054 141822"
  by (simp add: small_simps ts_small_parse_table_911_def)

definition ts_small_parse_table_912 :: "small_group list" where
  "ts_small_parse_table_912 = [
     (141822, 7, [(ACTIONS 3, 1, [anon_sym_SLASH_SLASH]), (ACTIONS 5, 1,
       [anon_sym_SLASH_STAR]), (ACTIONS 7, 1, [anon_sym_SLASH_SLASH_SLASH]), (ACTIONS 9, 1,
       [sym__block_comment]), (ACTIONS 11, 1, [sym__documentation_block_comment]), (ACTIONS 6472,
       2, [anon_sym_COLON, anon_sym_SEMI]), (STATE 3054, 2, [sym_comment,
       sym_documentation_comment])]),
     (141846, 7, [(ACTIONS 3, 1, [anon_sym_SLASH_SLASH]), (ACTIONS 5, 1,
       [anon_sym_SLASH_STAR]), (ACTIONS 7, 1, [anon_sym_SLASH_SLASH_SLASH]), (ACTIONS 9, 1,
       [sym__block_comment]), (ACTIONS 11, 1, [sym__documentation_block_comment]), (ACTIONS 6474,
       2, [anon_sym_COMMA, anon_sym_RPAREN]), (STATE 3055, 2, [sym_comment,
       sym_documentation_comment])]),
     (141870, 7, [(ACTIONS 3, 1, [anon_sym_SLASH_SLASH]), (ACTIONS 5, 1,
       [anon_sym_SLASH_STAR]), (ACTIONS 7, 1, [anon_sym_SLASH_SLASH_SLASH]), (ACTIONS 9, 1,
       [sym__block_comment]), (ACTIONS 11, 1, [sym__documentation_block_comment]), (ACTIONS 6264,
       2, [anon_sym_COMMA, anon_sym_RPAREN]), (STATE 3056, 2, [sym_comment,
       sym_documentation_comment])]),
     (141894, 8, [(ACTIONS 3, 1, [anon_sym_SLASH_SLASH]), (ACTIONS 5, 1,
       [anon_sym_SLASH_STAR]), (ACTIONS 7, 1, [anon_sym_SLASH_SLASH_SLASH]), (ACTIONS 9, 1,
       [sym__block_comment]), (ACTIONS 11, 1, [sym__documentation_block_comment]), (ACTIONS 474,
       1, [anon_sym_SEMI]), (STATE 1744, 1, [sym__semicolon]), (STATE 3057, 2, [sym_comment,
       sym_documentation_comment])]),
     (141920, 8, [(ACTIONS 3, 1, [anon_sym_SLASH_SLASH]), (ACTIONS 5, 1,
       [anon_sym_SLASH_STAR]), (ACTIONS 7, 1, [anon_sym_SLASH_SLASH_SLASH]), (ACTIONS 9, 1,
       [sym__block_comment]), (ACTIONS 11, 1, [sym__documentation_block_comment]), (ACTIONS 4584,
       1, [anon_sym_with]), (STATE 2612, 1, [sym_mixins]), (STATE 3058, 2, [sym_comment,
       sym_documentation_comment])]),
     (141946, 7, [(ACTIONS 3, 1, [anon_sym_SLASH_SLASH]), (ACTIONS 5, 1,
       [anon_sym_SLASH_STAR]), (ACTIONS 7, 1, [anon_sym_SLASH_SLASH_SLASH]), (ACTIONS 9, 1,
       [sym__block_comment]), (ACTIONS 11, 1, [sym__documentation_block_comment]), (ACTIONS 5092,
       2, [anon_sym_COMMA, anon_sym_RPAREN]), (STATE 3059, 2, [sym_comment,
       sym_documentation_comment])]),
     (141970, 8, [(ACTIONS 3, 1, [anon_sym_SLASH_SLASH]), (ACTIONS 5, 1,
       [anon_sym_SLASH_STAR]), (ACTIONS 7, 1, [anon_sym_SLASH_SLASH_SLASH]), (ACTIONS 9, 1,
       [sym__block_comment]), (ACTIONS 11, 1, [sym__documentation_block_comment]), (ACTIONS 2001,
       1, [anon_sym_LPAREN]), (STATE 947, 1, [sym_arguments]), (STATE 3060, 2, [sym_comment,
       sym_documentation_comment])]),
     (141996, 8, [(ACTIONS 3, 1, [anon_sym_SLASH_SLASH]), (ACTIONS 5, 1,
       [anon_sym_SLASH_STAR]), (ACTIONS 7, 1, [anon_sym_SLASH_SLASH_SLASH]), (ACTIONS 9, 1,
       [sym__block_comment]), (ACTIONS 11, 1, [sym__documentation_block_comment]), (ACTIONS 3398,
       1, [anon_sym_LPAREN]), (STATE 2413, 1, [sym_arguments]), (STATE 3061, 2, [sym_comment,
       sym_documentation_comment])])]"

lemma small_run_912: "small_run 3054 141822 ts_small_parse_table_912 3062 142022"
  by (simp add: small_simps ts_small_parse_table_912_def)

definition ts_small_parse_table_913 :: "small_group list" where
  "ts_small_parse_table_913 = [
     (142022, 8, [(ACTIONS 3, 1, [anon_sym_SLASH_SLASH]), (ACTIONS 5, 1,
       [anon_sym_SLASH_STAR]), (ACTIONS 7, 1, [anon_sym_SLASH_SLASH_SLASH]), (ACTIONS 9, 1,
       [sym__block_comment]), (ACTIONS 11, 1, [sym__documentation_block_comment]), (ACTIONS 4578,
       1, [anon_sym_LBRACE]), (STATE 1747, 1, [sym_class_body]), (STATE 3062, 2, [sym_comment,
       sym_documentation_comment])]),
     (142048, 8, [(ACTIONS 3, 1, [anon_sym_SLASH_SLASH]), (ACTIONS 5, 1,
       [anon_sym_SLASH_STAR]), (ACTIONS 7, 1, [anon_sym_SLASH_SLASH_SLASH]), (ACTIONS 9, 1,
       [sym__block_comment]), (ACTIONS 11, 1, [sym__documentation_block_comment]), (ACTIONS 4578,
       1, [anon_sym_LBRACE]), (STATE 1748, 1, [sym_class_body]), (STATE 3063, 2, [sym_comment,
       sym_documentation_comment])]),
     (142074, 8, [(ACTIONS 3, 1, [anon_sym_SLASH_SLASH]), (ACTIONS 5, 1,
       [anon_sym_SLASH_STAR]), (ACTIONS 7, 1, [anon_sym_SLASH_SLASH_SLASH]), (ACTIONS 9, 1,
       [sym__block_comment]), (ACTIONS 11, 1, [sym__documentation_block_comment]), (ACTIONS 6476,
       1, [anon_sym_COMMA]), (ACTIONS 6479, 1, [anon_sym_RPAREN]), (STATE 3064, 2, [sym_comment,
       sym_documentation_comment])]),
     (142100, 7, [(ACTIONS 3, 1, [anon_sym_SLASH_SLASH]), (ACTIONS 5, 1,
       [anon_sym_SLASH_STAR]), (ACTIONS 7, 1, [anon_sym_SLASH_SLASH_SLASH]), (ACTIONS 9, 1,
       [sym__block_comment]), (ACTIONS 11, 1, [sym__documentation_block_comment]), (ACTIONS 6481,
       2, [anon_sym_LBRACE, anon_sym_SEMI]), (STATE 3065, 2, [sym_comment,
       sym_documentation_comment])]),
     (142124, 8, [(ACTIONS 3, 1, [anon_sym_SLASH_SLASH]), (ACTIONS 5, 1,
       [anon_sym_SLASH_STAR]), (ACTIONS 7, 1, [anon_sym_SLASH_SLASH_SLASH]), (ACTIONS 9, 1,
       [sym__block_comment]), (ACTIONS 11, 1, [sym__documentation_block_comment]), (ACTIONS 3398,
       1, [anon_sym_LPAREN]), (STATE 2360, 1, [sym_arguments]), (STATE 3066, 2, [sym_comment,
       sym_documentation_comment])]),
     (142150, 8, [(ACTIONS 3, 1, [anon_sym_SLASH_SLASH]), (ACTIONS 5, 1,
       [anon_sym_SLASH_STAR]), (ACTIONS 7, 1, [anon_sym_SLASH_SLASH_SLASH]), (ACTIONS 9, 1,
       [sym__block_comment]), (ACTIONS 11, 1, [sym__documentation_block_comment]), (ACTIONS 6438,
       1, [anon_sym_LBRACE]), (STATE 1754, 1, [sym_extension_body]), (STATE 3067, 2,
       [sym_comment, sym_documentation_comment])]),
     (142176, 8, [(ACTIONS 3, 1, [anon_sym_SLASH_SLASH]), (ACTIONS 5, 1,
       [anon_sym_SLASH_STAR]), (ACTIONS 7, 1, [anon_sym_SLASH_SLASH_SLASH]), (ACTIONS 9, 1,
       [sym__block_comment]), (ACTIONS 11, 1, [sym__documentation_block_comment]), (ACTIONS 4460,
       1, [anon_sym_LPAREN]), (ACTIONS 6483, 1, [anon_sym_EQ]), (STATE 3068, 2, [sym_comment,
       sym_documentation_comment])]),
     (142202, 7, [(ACTIONS 3, 1, [anon_sym_SLASH_SLASH]), (ACTIONS 5, 1,
       [anon_sym_SLASH_STAR]), (ACTIONS 7, 1, [anon_sym_SLASH_SLASH_SLASH]), (ACTIONS 9, 1,
       [sym__block_comment]), (ACTIONS 11, 1, [sym__documentation_block_comment]), (ACTIONS 6485,
       2, [anon_sym_RBRACE, anon_sym_COMMA]), (STATE 3069, 2, [sym_comment,
       sym_documentation_comment])])]"

lemma small_run_913: "small_run 3062 142022 ts_small_parse_table_913 3070 142226"
  by (simp add: small_simps ts_small_parse_table_913_def)

definition ts_small_parse_table_914 :: "small_group list" where
  "ts_small_parse_table_914 = [
     (142226, 8, [(ACTIONS 3, 1, [anon_sym_SLASH_SLASH]), (ACTIONS 5, 1,
       [anon_sym_SLASH_STAR]), (ACTIONS 7, 1, [anon_sym_SLASH_SLASH_SLASH]), (ACTIONS 9, 1,
       [sym__block_comment]), (ACTIONS 11, 1, [sym__documentation_block_comment]), (ACTIONS 4363,
       1, [sym_increment_operator]), (STATE 942, 1, [sym_postfix_operator]), (STATE 3070, 2,
       [sym_comment, sym_documentation_comment])]),
     (142252, 8, [(ACTIONS 3, 1, [anon_sym_SLASH_SLASH]), (ACTIONS 5, 1,
       [anon_sym_SLASH_STAR]), (ACTIONS 7, 1, [anon_sym_SLASH_SLASH_SLASH]), (ACTIONS 9, 1,
       [sym__block_comment]), (ACTIONS 11, 1, [sym__documentation_block_comment]), (ACTIONS 6487,
       1, [anon_sym_COMMA]), (ACTIONS 6489, 1, [anon_sym_RPAREN]), (STATE 3071, 2, [sym_comment,
       sym_documentation_comment])]),
     (142278, 8, [(ACTIONS 3, 1, [anon_sym_SLASH_SLASH]), (ACTIONS 5, 1,
       [anon_sym_SLASH_STAR]), (ACTIONS 7, 1, [anon_sym_SLASH_SLASH_SLASH]), (ACTIONS 9, 1,
       [sym__block_comment]), (ACTIONS 11, 1, [sym__documentation_block_comment]), (ACTIONS 6491,
       1, [sym_identifier]), (STATE 2485, 1, [sym__type_name]), (STATE 3072, 2, [sym_comment,
       sym_documentation_comment])]),
     (142304, 8, [(ACTIONS 3, 1, [anon_sym_SLASH_SLASH]), (ACTIONS 5, 1,
       [anon_sym_SLASH_STAR]), (ACTIONS 7, 1, [anon_sym_SLASH_SLASH_SLASH]), (ACTIONS 9, 1,
       [sym__block_comment]), (ACTIONS 11, 1, [sym__documentation_block_comment]), (ACTIONS 474,
       1, [anon_sym_SEMI]), (STATE 1760, 1, [sym__semicolon]), (STATE 3073, 2, [sym_comment,
       sym_documentation_comment])]),
     (142330, 8, [(ACTIONS 3, 1, [anon_sym_SLASH_SLASH]), (ACTIONS 5, 1,
       [anon_sym_SLASH_STAR]), (ACTIONS 7, 1, [anon_sym_SLASH_SLASH_SLASH]), (ACTIONS 9, 1,
       [sym__block_comment]), (ACTIONS 11, 1, [sym__documentation_block_comment]), (ACTIONS 4578,
       1, [anon_sym_LBRACE]), (STATE 1728, 1, [sym_class_body]), (STATE 3074, 2, [sym_comment,
       sym_documentation_comment])]),
     (142356, 8, [(ACTIONS 3, 1, [anon_sym_SLASH_SLASH]), (ACTIONS 5, 1,
       [anon_sym_SLASH_STAR]), (ACTIONS 7, 1, [anon_sym_SLASH_SLASH_SLASH]), (ACTIONS 9, 1,
       [sym__block_comment]), (ACTIONS 11, 1, [sym__documentation_block_comment]), (ACTIONS 4578,
       1, [anon_sym_LBRACE]), (STATE 1793, 1, [sym_class_body]), (STATE 3075, 2, [sym_comment,
       sym_documentation_comment])]),
     (142382, 8, [(ACTIONS 3, 1, [anon_sym_SLASH_SLASH]), (ACTIONS 5, 1,
       [anon_sym_SLASH_STAR]), (ACTIONS 7, 1, [anon_sym_SLASH_SLASH_SLASH]), (ACTIONS 9, 1,
       [sym__block_comment]), (ACTIONS 11, 1, [sym__documentation_block_comment]), (ACTIONS 5822,
       1, [sym_identifier]), (STATE 3117, 1, [sym_dotted_identifier_list]), (STATE 3076, 2,
       [sym_comment, sym_documentation_comment])]),
     (142408, 8, [(ACTIONS 3, 1, [anon_sym_SLASH_SLASH]), (ACTIONS 5, 1,
       [anon_sym_SLASH_STAR]), (ACTIONS 7, 1, [anon_sym_SLASH_SLASH_SLASH]), (ACTIONS 9, 1,
       [sym__block_comment]), (ACTIONS 11, 1, [sym__documentation_block_comment]), (ACTIONS 2042,
       1, [anon_sym_LBRACK]), (STATE 876, 1, [sym_index_selector]), (STATE 3077, 2, [sym_comment,
       sym_documentation_comment])])]"

lemma small_run_914: "small_run 3070 142226 ts_small_parse_table_914 3078 142434"
  by (simp add: small_simps ts_small_parse_table_914_def)

definition ts_small_parse_table_915 :: "small_group list" where
  "ts_small_parse_table_915 = [
     (142434, 8, [(ACTIONS 3, 1, [anon_sym_SLASH_SLASH]), (ACTIONS 5, 1,
       [anon_sym_SLASH_STAR]), (ACTIONS 7, 1, [anon_sym_SLASH_SLASH_SLASH]), (ACTIONS 9, 1,
       [sym__block_comment]), (ACTIONS 11, 1, [sym__documentation_block_comment]), (ACTIONS 4578,
       1, [anon_sym_LBRACE]), (STATE 1768, 1, [sym_class_body]), (STATE 3078, 2, [sym_comment,
       sym_documentation_comment])]),
     (142460, 8, [(ACTIONS 3, 1, [anon_sym_SLASH_SLASH]), (ACTIONS 5, 1,
       [anon_sym_SLASH_STAR]), (ACTIONS 7, 1, [anon_sym_SLASH_SLASH_SLASH]), (ACTIONS 9, 1,
       [sym__block_comment]), (ACTIONS 11, 1, [sym__documentation_block_comment]), (ACTIONS 6493,
       1, [anon_sym_LBRACE]), (ACTIONS 6495, 1, [anon_sym_LBRACK]), (STATE 3079, 2, [sym_comment,
       sym_documentation_comment])]),
     (142486, 8, [(ACTIONS 3, 1, [anon_sym_SLASH_SLASH]), (ACTIONS 5, 1,
       [anon_sym_SLASH_STAR]), (ACTIONS 7, 1, [anon_sym_SLASH_SLASH_SLASH]), (ACTIONS 9, 1,
       [sym__block_comment]), (ACTIONS 11, 1, [sym__documentation_block_comment]), (ACTIONS 3398,
       1, [anon_sym_LPAREN]), (STATE 2379, 1, [sym_arguments]), (STATE 3080, 2, [sym_comment,
       sym_documentation_comment])]),
     (142512, 8, [(ACTIONS 3, 1, [anon_sym_SLASH_SLASH]), (ACTIONS 5, 1,
       [anon_sym_SLASH_STAR]), (ACTIONS 7, 1, [anon_sym_SLASH_SLASH_SLASH]), (ACTIONS 9, 1,
       [sym__block_comment]), (ACTIONS 11, 1, [sym__documentation_block_comment]), (ACTIONS 4327,
       1, [anon_sym_LBRACE]), (ACTIONS 4329, 1, [anon_sym_LBRACK]), (STATE 3081, 2, [sym_comment,
       sym_documentation_comment])]),
     (142538, 8, [(ACTIONS 3, 1, [anon_sym_SLASH_SLASH]), (ACTIONS 5, 1,
       [anon_sym_SLASH_STAR]), (ACTIONS 7, 1, [anon_sym_SLASH_SLASH_SLASH]), (ACTIONS 9, 1,
       [sym__block_comment]), (ACTIONS 11, 1, [sym__documentation_block_comment]), (ACTIONS 6497,
       1, [anon_sym_new]), (STATE 1056, 1, [sym__new_builtin]), (STATE 3082, 2, [sym_comment,
       sym_documentation_comment])]),
     (142564, 8, [(ACTIONS 3, 1, [anon_sym_SLASH_SLASH]), (ACTIONS 5, 1,
       [anon_sym_SLASH_STAR]), (ACTIONS 7, 1, [anon_sym_SLASH_SLASH_SLASH]), (ACTIONS 9, 1,
       [sym__block_comment]), (ACTIONS 11, 1, [sym__documentation_block_comment]), (ACTIONS 6499,
       1, [anon_sym_LPAREN]), (STATE 585, 1, [sym_arguments]), (STATE 3083, 2, [sym_comment,
       sym_documentation_comment])]),
     (142590, 8, [(ACTIONS 3, 1, [anon_sym_SLASH_SLASH]), (ACTIONS 5, 1,
       [anon_sym_SLASH_STAR]), (ACTIONS 7, 1, [anon_sym_SLASH_SLASH_SLASH]), (ACTIONS 9, 1,
       [sym__block_comment]), (ACTIONS 11, 1, [sym__documentation_block_comment]), (ACTIONS 5250,
       1, [anon_sym_LBRACE]), (STATE 1225, 1, [sym_block]), (STATE 3084, 2, [sym_comment,
       sym_documentation_comment])]),
     (142616, 8, [(ACTIONS 3, 1, [anon_sym_SLASH_SLASH]), (ACTIONS 5, 1,
       [anon_sym_SLASH_STAR]), (ACTIONS 7, 1, [anon_sym_SLASH_SLASH_SLASH]), (ACTIONS 9, 1,
       [sym__block_comment]), (ACTIONS 11, 1, [sym__documentation_block_comment]), (ACTIONS 6501,
       1, [anon_sym_COMMA]), (STATE 2805, 1, [aux_sym__record_literal_no_const_repeat1]), (STATE
       3085, 2, [sym_comment, sym_documentation_comment])])]"

lemma small_run_915: "small_run 3078 142434 ts_small_parse_table_915 3086 142642"
  by (simp add: small_simps ts_small_parse_table_915_def)

definition ts_small_parse_table_916 :: "small_group list" where
  "ts_small_parse_table_916 = [
     (142642, 8, [(ACTIONS 3, 1, [anon_sym_SLASH_SLASH]), (ACTIONS 5, 1,
       [anon_sym_SLASH_STAR]), (ACTIONS 7, 1, [anon_sym_SLASH_SLASH_SLASH]), (ACTIONS 9, 1,
       [sym__block_comment]), (ACTIONS 11, 1, [sym__documentation_block_comment]), (ACTIONS 474,
       1, [anon_sym_SEMI]), (STATE 549, 1, [sym__semicolon]), (STATE 3086, 2, [sym_comment,
       sym_documentation_comment])]),
     (142668, 8, [(ACTIONS 3, 1, [anon_sym_SLASH_SLASH]), (ACTIONS 5, 1,
       [anon_sym_SLASH_STAR]), (ACTIONS 7, 1, [anon_sym_SLASH_SLASH_SLASH]), (ACTIONS 9, 1,
       [sym__block_comment]), (ACTIONS 11, 1, [sym__documentation_block_comment]), (ACTIONS 6503,
       1, [anon_sym_LPAREN]), (STATE 6, 1, [sym_for_loop_parts]), (STATE 3087, 2, [sym_comment,
       sym_documentation_comment])]),
     (142694, 8, [(ACTIONS 3, 1, [anon_sym_SLASH_SLASH]), (ACTIONS 5, 1,
       [anon_sym_SLASH_STAR]), (ACTIONS 7, 1, [anon_sym_SLASH_SLASH_SLASH]), (ACTIONS 9, 1,
       [sym__block_comment]), (ACTIONS 11, 1, [sym__documentation_block_comment]), (ACTIONS 6430,
       1, [anon_sym_LPAREN]), (STATE 3148, 1, [sym_parenthesized_expression]), (STATE 3088, 2,
       [sym_comment, sym_documentation_comment])]),
     (142720, 8, [(ACTIONS 3, 1, [anon_sym_SLASH_SLASH]), (ACTIONS 5, 1,
       [anon_sym_SLASH_STAR]), (ACTIONS 7, 1, [anon_sym_SLASH_SLASH_SLASH]), (ACTIONS 9, 1,
       [sym__block_comment]), (ACTIONS 11, 1, [sym__documentation_block_comment]), (ACTIONS 6505,
       1, [anon_sym_COMMA]), (ACTIONS 6507, 1, [anon_sym_RPAREN]), (STATE 3089, 2, [sym_comment,
       sym_documentation_comment])]),
     (142746, 8, [(ACTIONS 3, 1, [anon_sym_SLASH_SLASH]), (ACTIONS 5, 1,
       [anon_sym_SLASH_STAR]), (ACTIONS 7, 1, [anon_sym_SLASH_SLASH_SLASH]), (ACTIONS 9, 1,
       [sym__block_comment]), (ACTIONS 11, 1, [sym__documentation_block_comment]), (ACTIONS 5696,
       1, [anon_sym_LBRACE]), (STATE 488, 1, [sym_block]), (STATE 3090, 2, [sym_comment,
       sym_documentation_comment])]),
     (142772, 7, [(ACTIONS 3, 1, [anon_sym_SLASH_SLASH]), (ACTIONS 5, 1,
       [anon_sym_SLASH_STAR]), (ACTIONS 7, 1, [anon_sym_SLASH_SLASH_SLASH]), (ACTIONS 9, 1,
       [sym__block_comment]), (ACTIONS 11, 1, [sym__documentation_block_comment]), (ACTIONS 6509,
       2, [anon_sym_COMMA, anon_sym_RPAREN]), (STATE 3091, 2, [sym_comment,
       sym_documentation_comment])]),
     (142796, 8, [(ACTIONS 3, 1, [anon_sym_SLASH_SLASH]), (ACTIONS 5, 1,
       [anon_sym_SLASH_STAR]), (ACTIONS 7, 1, [anon_sym_SLASH_SLASH_SLASH]), (ACTIONS 9, 1,
       [sym__block_comment]), (ACTIONS 11, 1, [sym__documentation_block_comment]), (ACTIONS 4971,
       1, [anon_sym_LBRACE]), (STATE 1752, 1, [sym_enum_body]), (STATE 3092, 2, [sym_comment,
       sym_documentation_comment])]),
     (142822, 8, [(ACTIONS 3, 1, [anon_sym_SLASH_SLASH]), (ACTIONS 5, 1,
       [anon_sym_SLASH_STAR]), (ACTIONS 7, 1, [anon_sym_SLASH_SLASH_SLASH]), (ACTIONS 9, 1,
       [sym__block_comment]), (ACTIONS 11, 1, [sym__documentation_block_comment]), (ACTIONS 5191,
       1, [anon_sym_as]), (STATE 3298, 1, [sym__as]), (STATE 3093, 2, [sym_comment,
       sym_documentation_comment])])]"

lemma small_run_916: "small_run 3086 142642 ts_small_parse_table_916 3094 142848"
  by (simp add: small_simps ts_small_parse_table_916_def)

definition ts_small_parse_table_917 :: "small_group list" where
  "ts_small_parse_table_917 = [
     (142848, 8, [(ACTIONS 3, 1, [anon_sym_SLASH_SLASH]), (ACTIONS 5, 1,
       [anon_sym_SLASH_STAR]), (ACTIONS 7, 1, [anon_sym_SLASH_SLASH_SLASH]), (ACTIONS 9, 1,
       [sym__block_comment]), (ACTIONS 11, 1, [sym__documentation_block_comment]), (ACTIONS 6503,
       1, [anon_sym_LPAREN]), (STATE 160, 1, [sym_for_loop_parts]), (STATE 3094, 2, [sym_comment,
       sym_documentation_comment])]),
     (142874, 8, [(ACTIONS 3, 1, [anon_sym_SLASH_SLASH]), (ACTIONS 5, 1,
       [anon_sym_SLASH_STAR]), (ACTIONS 7, 1, [anon_sym_SLASH_SLASH_SLASH]), (ACTIONS 9, 1,
       [sym__block_comment]), (ACTIONS 11, 1, [sym__documentation_block_comment]), (ACTIONS 6438,
       1, [anon_sym_LBRACE]), (STATE 1743, 1, [sym_extension_body]), (STATE 3095, 2,
       [sym_comment, sym_documentation_comment])]),
     (142900, 7, [(ACTIONS 3, 1, [anon_sym_SLASH_SLASH]), (ACTIONS 5, 1,
       [anon_sym_SLASH_STAR]), (ACTIONS 7, 1, [anon_sym_SLASH_SLASH_SLASH]), (ACTIONS 9, 1,
       [sym__block_comment]), (ACTIONS 11, 1, [sym__documentation_block_comment]), (ACTIONS 6511,
       2, [anon_sym_class, anon_sym_mixin]), (STATE 3096, 2, [sym_comment,
       sym_documentation_comment])]),
     (142924, 8, [(ACTIONS 3, 1, [anon_sym_SLASH_SLASH]), (ACTIONS 5, 1,
       [anon_sym_SLASH_STAR]), (ACTIONS 7, 1, [anon_sym_SLASH_SLASH_SLASH]), (ACTIONS 9, 1,
       [sym__block_comment]), (ACTIONS 11, 1, [sym__documentation_block_comment]), (ACTIONS 6513,
       1, [anon_sym_LBRACE]), (ACTIONS 6515, 1, [anon_sym_LBRACK]), (STATE 3097, 2, [sym_comment,
       sym_documentation_comment])]),
     (142950, 8, [(ACTIONS 3, 1, [anon_sym_SLASH_SLASH]), (ACTIONS 5, 1,
       [anon_sym_SLASH_STAR]), (ACTIONS 7, 1, [anon_sym_SLASH_SLASH_SLASH]), (ACTIONS 9, 1,
       [sym__block_comment]), (ACTIONS 11, 1, [sym__documentation_block_comment]), (ACTIONS 6249,
       1, [anon_sym_RPAREN]), (ACTIONS 6509, 1, [anon_sym_COMMA]), (STATE 3098, 2, [sym_comment,
       sym_documentation_comment])]),
     (142976, 7, [(ACTIONS 3, 1, [anon_sym_SLASH_SLASH]), (ACTIONS 5, 1,
       [anon_sym_SLASH_STAR]), (ACTIONS 7, 1, [anon_sym_SLASH_SLASH_SLASH]), (ACTIONS 9, 1,
       [sym__block_comment]), (ACTIONS 11, 1, [sym__documentation_block_comment]), (ACTIONS 6517,
       2, [anon_sym_COMMA, anon_sym_RBRACK]), (STATE 3099, 2, [sym_comment,
       sym_documentation_comment])]),
     (143000, 8, [(ACTIONS 3, 1, [anon_sym_SLASH_SLASH]), (ACTIONS 5, 1,
       [anon_sym_SLASH_STAR]), (ACTIONS 7, 1, [anon_sym_SLASH_SLASH_SLASH]), (ACTIONS 9, 1,
       [sym__block_comment]), (ACTIONS 11, 1, [sym__documentation_block_comment]), (ACTIONS 4291,
       1, [anon_sym_LBRACE]), (ACTIONS 4293, 1, [anon_sym_LBRACK]), (STATE 3100, 2, [sym_comment,
       sym_documentation_comment])]),
     (143026, 7, [(ACTIONS 3, 1, [anon_sym_SLASH_SLASH]), (ACTIONS 5, 1,
       [anon_sym_SLASH_STAR]), (ACTIONS 7, 1, [anon_sym_SLASH_SLASH_SLASH]), (ACTIONS 9, 1,
       [sym__block_comment]), (ACTIONS 11, 1, [sym__documentation_block_comment]), (ACTIONS 6519,
       2, [anon_sym_RBRACE, anon_sym_COMMA]), (STATE 3101, 2, [sym_comment,
       sym_documentation_comment])])]"

lemma small_run_917: "small_run 3094 142848 ts_small_parse_table_917 3102 143050"
  by (simp add: small_simps ts_small_parse_table_917_def)

definition ts_small_parse_table_918 :: "small_group list" where
  "ts_small_parse_table_918 = [
     (143050, 8, [(ACTIONS 3, 1, [anon_sym_SLASH_SLASH]), (ACTIONS 5, 1,
       [anon_sym_SLASH_STAR]), (ACTIONS 7, 1, [anon_sym_SLASH_SLASH_SLASH]), (ACTIONS 9, 1,
       [sym__block_comment]), (ACTIONS 11, 1, [sym__documentation_block_comment]), (ACTIONS 5465,
       1, [anon_sym_LBRACK]), (STATE 582, 1, [sym_index_selector]), (STATE 3102, 2, [sym_comment,
       sym_documentation_comment])]),
     (143076, 7, [(ACTIONS 3, 1, [anon_sym_SLASH_SLASH]), (ACTIONS 5, 1,
       [anon_sym_SLASH_STAR]), (ACTIONS 7, 1, [anon_sym_SLASH_SLASH_SLASH]), (ACTIONS 9, 1,
       [sym__block_comment]), (ACTIONS 11, 1, [sym__documentation_block_comment]), (ACTIONS 6521,
       2, [anon_sym_class, sym_identifier]), (STATE 3103, 2, [sym_comment,
       sym_documentation_comment])]),
     (143100, 8, [(ACTIONS 3, 1, [anon_sym_SLASH_SLASH]), (ACTIONS 5, 1,
       [anon_sym_SLASH_STAR]), (ACTIONS 7, 1, [anon_sym_SLASH_SLASH_SLASH]), (ACTIONS 9, 1,
       [sym__block_comment]), (ACTIONS 11, 1, [sym__documentation_block_comment]), (ACTIONS 474,
       1, [anon_sym_SEMI]), (STATE 1772, 1, [sym__semicolon]), (STATE 3104, 2, [sym_comment,
       sym_documentation_comment])]),
     (143126, 8, [(ACTIONS 3, 1, [anon_sym_SLASH_SLASH]), (ACTIONS 5, 1,
       [anon_sym_SLASH_STAR]), (ACTIONS 7, 1, [anon_sym_SLASH_SLASH_SLASH]), (ACTIONS 9, 1,
       [sym__block_comment]), (ACTIONS 11, 1, [sym__documentation_block_comment]), (ACTIONS 6501,
       1, [anon_sym_COMMA]), (STATE 2913, 1, [aux_sym__record_literal_no_const_repeat1]), (STATE
       3105, 2, [sym_comment, sym_documentation_comment])]),
     (143152, 8, [(ACTIONS 3, 1, [anon_sym_SLASH_SLASH]), (ACTIONS 5, 1,
       [anon_sym_SLASH_STAR]), (ACTIONS 7, 1, [anon_sym_SLASH_SLASH_SLASH]), (ACTIONS 9, 1,
       [sym__block_comment]), (ACTIONS 11, 1, [sym__documentation_block_comment]), (ACTIONS 2302,
       1, [anon_sym_LPAREN]), (STATE 1220, 1, [sym_arguments]), (STATE 3106, 2, [sym_comment,
       sym_documentation_comment])]),
     (143178, 8, [(ACTIONS 3, 1, [anon_sym_SLASH_SLASH]), (ACTIONS 5, 1,
       [anon_sym_SLASH_STAR]), (ACTIONS 7, 1, [anon_sym_SLASH_SLASH_SLASH]), (ACTIONS 9, 1,
       [sym__block_comment]), (ACTIONS 11, 1, [sym__documentation_block_comment]), (ACTIONS 5193,
       1, [anon_sym_SEMI]), (STATE 1723, 1, [sym__semicolon]), (STATE 3107, 2, [sym_comment,
       sym_documentation_comment])]),
     (143204, 8, [(ACTIONS 3, 1, [anon_sym_SLASH_SLASH]), (ACTIONS 5, 1,
       [anon_sym_SLASH_STAR]), (ACTIONS 7, 1, [anon_sym_SLASH_SLASH_SLASH]), (ACTIONS 9, 1,
       [sym__block_comment]), (ACTIONS 11, 1, [sym__documentation_block_comment]), (ACTIONS 6501,
       1, [anon_sym_COMMA]), (STATE 2871, 1, [aux_sym__record_literal_no_const_repeat1]), (STATE
       3108, 2, [sym_comment, sym_documentation_comment])]),
     (143230, 8, [(ACTIONS 3, 1, [anon_sym_SLASH_SLASH]), (ACTIONS 5, 1,
       [anon_sym_SLASH_STAR]), (ACTIONS 7, 1, [anon_sym_SLASH_SLASH_SLASH]), (ACTIONS 9, 1,
       [sym__block_comment]), (ACTIONS 11, 1, [sym__documentation_block_comment]), (ACTIONS 6523,
       1, [anon_sym_LBRACE]), (ACTIONS 6525, 1, [anon_sym_LBRACK]), (STATE 3109, 2, [sym_comment,
       sym_documentation_comment])])]"

lemma small_run_918: "small_run 3102 143050 ts_small_parse_table_918 3110 143256"
  by (simp add: small_simps ts_small_parse_table_918_def)

definition ts_small_parse_table_919 :: "small_group list" where
  "ts_small_parse_table_919 = [
     (143256, 8, [(ACTIONS 3, 1, [anon_sym_SLASH_SLASH]), (ACTIONS 5, 1,
       [anon_sym_SLASH_STAR]), (ACTIONS 7, 1, [anon_sym_SLASH_SLASH_SLASH]), (ACTIONS 9, 1,
       [sym__block_comment]), (ACTIONS 11, 1, [sym__documentation_block_comment]), (ACTIONS 5444,
       1, [anon_sym_LBRACK]), (STATE 637, 1, [sym_index_selector]), (STATE 3110, 2, [sym_comment,
       sym_documentation_comment])]),
     (143282, 8, [(ACTIONS 3, 1, [anon_sym_SLASH_SLASH]), (ACTIONS 5, 1,
       [anon_sym_SLASH_STAR]), (ACTIONS 7, 1, [anon_sym_SLASH_SLASH_SLASH]), (ACTIONS 9, 1,
       [sym__block_comment]), (ACTIONS 11, 1, [sym__documentation_block_comment]), (ACTIONS 6527,
       1, [anon_sym_COMMA]), (ACTIONS 6530, 1, [anon_sym_RPAREN]), (STATE 3111, 2, [sym_comment,
       sym_documentation_comment])]),
     (143308, 7, [(ACTIONS 3, 1, [anon_sym_SLASH_SLASH]), (ACTIONS 5, 1,
       [anon_sym_SLASH_STAR]), (ACTIONS 7, 1, [anon_sym_SLASH_SLASH_SLASH]), (ACTIONS 9, 1,
       [sym__block_comment]), (ACTIONS 11, 1, [sym__documentation_block_comment]), (ACTIONS 5069,
       2, [anon_sym_COMMA, anon_sym_RPAREN]), (STATE 3112, 2, [sym_comment,
       sym_documentation_comment])]),
     (143332, 8, [(ACTIONS 3, 1, [anon_sym_SLASH_SLASH]), (ACTIONS 5, 1,
       [anon_sym_SLASH_STAR]), (ACTIONS 7, 1, [anon_sym_SLASH_SLASH_SLASH]), (ACTIONS 9, 1,
       [sym__block_comment]), (ACTIONS 11, 1, [sym__documentation_block_comment]), (ACTIONS 2302,
       1, [anon_sym_LPAREN]), (STATE 1291, 1, [sym_arguments]), (STATE 3113, 2, [sym_comment,
       sym_documentation_comment])]),
     (143358, 8, [(ACTIONS 3, 1, [anon_sym_SLASH_SLASH]), (ACTIONS 5, 1,
       [anon_sym_SLASH_STAR]), (ACTIONS 7, 1, [anon_sym_SLASH_SLASH_SLASH]), (ACTIONS 9, 1,
       [sym__block_comment]), (ACTIONS 11, 1, [sym__documentation_block_comment]), (ACTIONS 6432,
       1, [anon_sym_COMMA]), (ACTIONS 6532, 1, [anon_sym_RPAREN]), (STATE 3114, 2, [sym_comment,
       sym_documentation_comment])]),
     (143384, 8, [(ACTIONS 3, 1, [anon_sym_SLASH_SLASH]), (ACTIONS 5, 1,
       [anon_sym_SLASH_STAR]), (ACTIONS 7, 1, [anon_sym_SLASH_SLASH_SLASH]), (ACTIONS 9, 1,
       [sym__block_comment]), (ACTIONS 11, 1, [sym__documentation_block_comment]), (ACTIONS 4297,
       1, [anon_sym_LBRACE]), (ACTIONS 4299, 1, [anon_sym_LBRACK]), (STATE 3115, 2, [sym_comment,
       sym_documentation_comment])]),
     (143410, 8, [(ACTIONS 3, 1, [anon_sym_SLASH_SLASH]), (ACTIONS 5, 1,
       [anon_sym_SLASH_STAR]), (ACTIONS 7, 1, [anon_sym_SLASH_SLASH_SLASH]), (ACTIONS 9, 1,
       [sym__block_comment]), (ACTIONS 11, 1, [sym__documentation_block_comment]), (ACTIONS 1557,
       1, [anon_sym_while]), (ACTIONS 6535, 1, [anon_sym_else]), (STATE 3116, 2, [sym_comment,
       sym_documentation_comment])]),
     (143436, 8, [(ACTIONS 3, 1, [anon_sym_SLASH_SLASH]), (ACTIONS 5, 1,
       [anon_sym_SLASH_STAR]), (ACTIONS 7, 1, [anon_sym_SLASH_SLASH_SLASH]), (ACTIONS 9, 1,
       [sym__block_comment]), (ACTIONS 11, 1, [sym__documentation_block_comment]), (ACTIONS 5193,
       1, [anon_sym_SEMI]), (STATE 1558, 1, [sym__semicolon]), (STATE 3117, 2, [sym_comment,
       sym_documentation_comment])])]"

lemma small_run_919: "small_run 3110 143256 ts_small_parse_table_919 3118 143462"
  by (simp add: small_simps ts_small_parse_table_919_def)

definition ts_small_parse_table_920 :: "small_group list" where
  "ts_small_parse_table_920 = [
     (143462, 8, [(ACTIONS 3, 1, [anon_sym_SLASH_SLASH]), (ACTIONS 5, 1,
       [anon_sym_SLASH_STAR]), (ACTIONS 7, 1, [anon_sym_SLASH_SLASH_SLASH]), (ACTIONS 9, 1,
       [sym__block_comment]), (ACTIONS 11, 1, [sym__documentation_block_comment]), (ACTIONS 3398,
       1, [anon_sym_LPAREN]), (STATE 2416, 1, [sym_arguments]), (STATE 3118, 2, [sym_comment,
       sym_documentation_comment])]),
     (143488, 8, [(ACTIONS 3, 1, [anon_sym_SLASH_SLASH]), (ACTIONS 5, 1,
       [anon_sym_SLASH_STAR]), (ACTIONS 7, 1, [anon_sym_SLASH_SLASH_SLASH]), (ACTIONS 9, 1,
       [sym__block_comment]), (ACTIONS 11, 1, [sym__documentation_block_comment]), (ACTIONS 6503,
       1, [anon_sym_LPAREN]), (STATE 38, 1, [sym_for_loop_parts]), (STATE 3119, 2, [sym_comment,
       sym_documentation_comment])]),
     (143514, 8, [(ACTIONS 3, 1, [anon_sym_SLASH_SLASH]), (ACTIONS 5, 1,
       [anon_sym_SLASH_STAR]), (ACTIONS 7, 1, [anon_sym_SLASH_SLASH_SLASH]), (ACTIONS 9, 1,
       [sym__block_comment]), (ACTIONS 11, 1, [sym__documentation_block_comment]), (ACTIONS 6163,
       1, [anon_sym_RPAREN]), (ACTIONS 6509, 1, [anon_sym_COMMA]), (STATE 3120, 2, [sym_comment,
       sym_documentation_comment])]),
     (143540, 8, [(ACTIONS 3, 1, [anon_sym_SLASH_SLASH]), (ACTIONS 5, 1,
       [anon_sym_SLASH_STAR]), (ACTIONS 7, 1, [anon_sym_SLASH_SLASH_SLASH]), (ACTIONS 9, 1,
       [sym__block_comment]), (ACTIONS 11, 1, [sym__documentation_block_comment]), (ACTIONS 1619,
       1, [anon_sym_while]), (ACTIONS 6537, 1, [anon_sym_else]), (STATE 3121, 2, [sym_comment,
       sym_documentation_comment])]),
     (143566, 8, [(ACTIONS 3, 1, [anon_sym_SLASH_SLASH]), (ACTIONS 5, 1,
       [anon_sym_SLASH_STAR]), (ACTIONS 7, 1, [anon_sym_SLASH_SLASH_SLASH]), (ACTIONS 9, 1,
       [sym__block_comment]), (ACTIONS 11, 1, [sym__documentation_block_comment]), (ACTIONS 4361,
       1, [sym_increment_operator]), (STATE 1317, 1, [sym_postfix_operator]), (STATE 3122, 2,
       [sym_comment, sym_documentation_comment])]),
     (143592, 8, [(ACTIONS 3, 1, [anon_sym_SLASH_SLASH]), (ACTIONS 5, 1,
       [anon_sym_SLASH_STAR]), (ACTIONS 7, 1, [anon_sym_SLASH_SLASH_SLASH]), (ACTIONS 9, 1,
       [sym__block_comment]), (ACTIONS 11, 1, [sym__documentation_block_comment]), (ACTIONS 6539,
       1, [anon_sym_LBRACE]), (STATE 524, 1, [sym_switch_block]), (STATE 3123, 2, [sym_comment,
       sym_documentation_comment])]),
     (143618, 8, [(ACTIONS 3, 1, [anon_sym_SLASH_SLASH]), (ACTIONS 5, 1,
       [anon_sym_SLASH_STAR]), (ACTIONS 7, 1, [anon_sym_SLASH_SLASH_SLASH]), (ACTIONS 9, 1,
       [sym__block_comment]), (ACTIONS 11, 1, [sym__documentation_block_comment]), (ACTIONS 6216,
       1, [anon_sym_RPAREN]), (ACTIONS 6509, 1, [anon_sym_COMMA]), (STATE 3124, 2, [sym_comment,
       sym_documentation_comment])]),
     (143644, 8, [(ACTIONS 3, 1, [anon_sym_SLASH_SLASH]), (ACTIONS 5, 1,
       [anon_sym_SLASH_STAR]), (ACTIONS 7, 1, [anon_sym_SLASH_SLASH_SLASH]), (ACTIONS 9, 1,
       [sym__block_comment]), (ACTIONS 11, 1, [sym__documentation_block_comment]), (ACTIONS 6541,
       1, [sym_identifier]), (STATE 2712, 1, [sym__identifier_list]), (STATE 3125, 2,
       [sym_comment, sym_documentation_comment])])]"

lemma small_run_920: "small_run 3118 143462 ts_small_parse_table_920 3126 143670"
  by (simp add: small_simps ts_small_parse_table_920_def)

definition ts_small_parse_table_921 :: "small_group list" where
  "ts_small_parse_table_921 = [
     (143670, 8, [(ACTIONS 3, 1, [anon_sym_SLASH_SLASH]), (ACTIONS 5, 1,
       [anon_sym_SLASH_STAR]), (ACTIONS 7, 1, [anon_sym_SLASH_SLASH_SLASH]), (ACTIONS 9, 1,
       [sym__block_comment]), (ACTIONS 11, 1, [sym__documentation_block_comment]), (ACTIONS 6543,
       1, [anon_sym_LPAREN]), (STATE 647, 1, [sym_arguments]), (STATE 3126, 2, [sym_comment,
       sym_documentation_comment])]),
     (143696, 8, [(ACTIONS 3, 1, [anon_sym_SLASH_SLASH]), (ACTIONS 5, 1,
       [anon_sym_SLASH_STAR]), (ACTIONS 7, 1, [anon_sym_SLASH_SLASH_SLASH]), (ACTIONS 9, 1,
       [sym__block_comment]), (ACTIONS 11, 1, [sym__documentation_block_comment]), (ACTIONS 2302,
       1, [anon_sym_LPAREN]), (STATE 1277, 1, [sym_arguments]), (STATE 3127, 2, [sym_comment,
       sym_documentation_comment])]),
     (143722, 8, [(ACTIONS 3, 1, [anon_sym_SLASH_SLASH]), (ACTIONS 5, 1,
       [anon_sym_SLASH_STAR]), (ACTIONS 7, 1, [anon_sym_SLASH_SLASH_SLASH]), (ACTIONS 9, 1,
       [sym__block_comment]), (ACTIONS 11, 1, [sym__documentation_block_comment]), (ACTIONS 6545,
       1, [anon_sym_LPAREN]), (STATE 1909, 1, [sym_configuration_uri_condition]), (STATE 3128, 2,
       [sym_comment, sym_documentation_comment])]),
     (143748, 8, [(ACTIONS 3, 1, [anon_sym_SLASH_SLASH]), (ACTIONS 5, 1,
       [anon_sym_SLASH_STAR]), (ACTIONS 7, 1, [anon_sym_SLASH_SLASH_SLASH]), (ACTIONS 9, 1,
       [sym__block_comment]), (ACTIONS 11, 1, [sym__documentation_block_comment]), (ACTIONS 474,
       1, [anon_sym_SEMI]), (STATE 522, 1, [sym__semicolon]), (STATE 3129, 2, [sym_comment,
       sym_documentation_comment])]),
     (143774, 8, [(ACTIONS 3, 1, [anon_sym_SLASH_SLASH]), (ACTIONS 5, 1,
       [anon_sym_SLASH_STAR]), (ACTIONS 7, 1, [anon_sym_SLASH_SLASH_SLASH]), (ACTIONS 9, 1,
       [sym__block_comment]), (ACTIONS 11, 1, [sym__documentation_block_comment]), (ACTIONS 474,
       1, [anon_sym_SEMI]), (STATE 530, 1, [sym__semicolon]), (STATE 3130, 2, [sym_comment,
       sym_documentation_comment])]),
     (143800, 7, [(ACTIONS 3, 1, [anon_sym_SLASH_SLASH]), (ACTIONS 5, 1,
       [anon_sym_SLASH_STAR]), (ACTIONS 7, 1, [anon_sym_SLASH_SLASH_SLASH]), (ACTIONS 9, 1,
       [sym__block_comment]), (ACTIONS 11, 1, [sym__documentation_block_comment]), (ACTIONS 5692,
       2, [anon_sym_COMMA, anon_sym_GT]), (STATE 3131, 2, [sym_comment,
       sym_documentation_comment])]),
     (143824, 8, [(ACTIONS 3, 1, [anon_sym_SLASH_SLASH]), (ACTIONS 5, 1,
       [anon_sym_SLASH_STAR]), (ACTIONS 7, 1, [anon_sym_SLASH_SLASH_SLASH]), (ACTIONS 9, 1,
       [sym__block_comment]), (ACTIONS 11, 1, [sym__documentation_block_comment]), (ACTIONS 6547,
       1, [anon_sym_RPAREN]), (ACTIONS 6549, 1, [anon_sym_case]), (STATE 3132, 2, [sym_comment,
       sym_documentation_comment])]),
     (143850, 8, [(ACTIONS 3, 1, [anon_sym_SLASH_SLASH]), (ACTIONS 5, 1,
       [anon_sym_SLASH_STAR]), (ACTIONS 7, 1, [anon_sym_SLASH_SLASH_SLASH]), (ACTIONS 9, 1,
       [sym__block_comment]), (ACTIONS 11, 1, [sym__documentation_block_comment]), (ACTIONS 474,
       1, [anon_sym_SEMI]), (STATE 541, 1, [sym__semicolon]), (STATE 3133, 2, [sym_comment,
       sym_documentation_comment])])]"

lemma small_run_921: "small_run 3126 143670 ts_small_parse_table_921 3134 143876"
  by (simp add: small_simps ts_small_parse_table_921_def)

definition ts_small_parse_table_922 :: "small_group list" where
  "ts_small_parse_table_922 = [
     (143876, 8, [(ACTIONS 3, 1, [anon_sym_SLASH_SLASH]), (ACTIONS 5, 1,
       [anon_sym_SLASH_STAR]), (ACTIONS 7, 1, [anon_sym_SLASH_SLASH_SLASH]), (ACTIONS 9, 1,
       [sym__block_comment]), (ACTIONS 11, 1, [sym__documentation_block_comment]), (ACTIONS 474,
       1, [anon_sym_SEMI]), (STATE 200, 1, [sym__semicolon]), (STATE 3134, 2, [sym_comment,
       sym_documentation_comment])]),
     (143902, 8, [(ACTIONS 3, 1, [anon_sym_SLASH_SLASH]), (ACTIONS 5, 1,
       [anon_sym_SLASH_STAR]), (ACTIONS 7, 1, [anon_sym_SLASH_SLASH_SLASH]), (ACTIONS 9, 1,
       [sym__block_comment]), (ACTIONS 11, 1, [sym__documentation_block_comment]), (ACTIONS 6551,
       1, [anon_sym_LBRACE]), (ACTIONS 6553, 1, [anon_sym_LBRACK]), (STATE 3135, 2, [sym_comment,
       sym_documentation_comment])]),
     (143928, 8, [(ACTIONS 3, 1, [anon_sym_SLASH_SLASH]), (ACTIONS 5, 1,
       [anon_sym_SLASH_STAR]), (ACTIONS 7, 1, [anon_sym_SLASH_SLASH_SLASH]), (ACTIONS 9, 1,
       [sym__block_comment]), (ACTIONS 11, 1, [sym__documentation_block_comment]), (ACTIONS 6555,
       1, [anon_sym_EQ]), (ACTIONS 6557, 1, [anon_sym_in]), (STATE 3136, 2, [sym_comment,
       sym_documentation_comment])]),
     (143954, 8, [(ACTIONS 3, 1, [anon_sym_SLASH_SLASH]), (ACTIONS 5, 1,
       [anon_sym_SLASH_STAR]), (ACTIONS 7, 1, [anon_sym_SLASH_SLASH_SLASH]), (ACTIONS 9, 1,
       [sym__block_comment]), (ACTIONS 11, 1, [sym__documentation_block_comment]), (ACTIONS 4606,
       1, [anon_sym_LPAREN]), (ACTIONS 6559, 1, [anon_sym_DOT]), (STATE 3137, 2, [sym_comment,
       sym_documentation_comment])]),
     (143980, 8, [(ACTIONS 3, 1, [anon_sym_SLASH_SLASH]), (ACTIONS 5, 1,
       [anon_sym_SLASH_STAR]), (ACTIONS 7, 1, [anon_sym_SLASH_SLASH_SLASH]), (ACTIONS 9, 1,
       [sym__block_comment]), (ACTIONS 11, 1, [sym__documentation_block_comment]), (ACTIONS 474,
       1, [anon_sym_SEMI]), (STATE 518, 1, [sym__semicolon]), (STATE 3138, 2, [sym_comment,
       sym_documentation_comment])]),
     (144006, 8, [(ACTIONS 3, 1, [anon_sym_SLASH_SLASH]), (ACTIONS 5, 1,
       [anon_sym_SLASH_STAR]), (ACTIONS 7, 1, [anon_sym_SLASH_SLASH_SLASH]), (ACTIONS 9, 1,
       [sym__block_comment]), (ACTIONS 11, 1, [sym__documentation_block_comment]), (ACTIONS 5193,
       1, [anon_sym_SEMI]), (STATE 1713, 1, [sym__semicolon]), (STATE 3139, 2, [sym_comment,
       sym_documentation_comment])]),
     (144032, 8, [(ACTIONS 3, 1, [anon_sym_SLASH_SLASH]), (ACTIONS 5, 1,
       [anon_sym_SLASH_STAR]), (ACTIONS 7, 1, [anon_sym_SLASH_SLASH_SLASH]), (ACTIONS 9, 1,
       [sym__block_comment]), (ACTIONS 11, 1, [sym__documentation_block_comment]), (ACTIONS 1999,
       1, [anon_sym_LBRACK]), (STATE 563, 1, [sym_index_selector]), (STATE 3140, 2, [sym_comment,
       sym_documentation_comment])]),
     (144058, 8, [(ACTIONS 3, 1, [anon_sym_SLASH_SLASH]), (ACTIONS 5, 1,
       [anon_sym_SLASH_STAR]), (ACTIONS 7, 1, [anon_sym_SLASH_SLASH_SLASH]), (ACTIONS 9, 1,
       [sym__block_comment]), (ACTIONS 11, 1, [sym__documentation_block_comment]), (ACTIONS 6561,
       1, [anon_sym_LBRACE]), (ACTIONS 6563, 1, [anon_sym_LBRACK]), (STATE 3141, 2, [sym_comment,
       sym_documentation_comment])])]"

lemma small_run_922: "small_run 3134 143876 ts_small_parse_table_922 3142 144084"
  by (simp add: small_simps ts_small_parse_table_922_def)

definition ts_small_parse_table_923 :: "small_group list" where
  "ts_small_parse_table_923 = [
     (144084, 8, [(ACTIONS 3, 1, [anon_sym_SLASH_SLASH]), (ACTIONS 5, 1,
       [anon_sym_SLASH_STAR]), (ACTIONS 7, 1, [anon_sym_SLASH_SLASH_SLASH]), (ACTIONS 9, 1,
       [sym__block_comment]), (ACTIONS 11, 1, [sym__documentation_block_comment]), (ACTIONS 4833,
       1, [anon_sym_LBRACE]), (STATE 2332, 1, [sym_block]), (STATE 3142, 2, [sym_comment,
       sym_documentation_comment])]),
     (144110, 8, [(ACTIONS 3, 1, [anon_sym_SLASH_SLASH]), (ACTIONS 5, 1,
       [anon_sym_SLASH_STAR]), (ACTIONS 7, 1, [anon_sym_SLASH_SLASH_SLASH]), (ACTIONS 9, 1,
       [sym__block_comment]), (ACTIONS 11, 1, [sym__documentation_block_comment]), (ACTIONS 6565,
       1, [anon_sym_new]), (STATE 1201, 1, [sym__new_builtin]), (STATE 3143, 2, [sym_comment,
       sym_documentation_comment])]),
     (144136, 8, [(ACTIONS 3, 1, [anon_sym_SLASH_SLASH]), (ACTIONS 5, 1,
       [anon_sym_SLASH_STAR]), (ACTIONS 7, 1, [anon_sym_SLASH_SLASH_SLASH]), (ACTIONS 9, 1,
       [sym__block_comment]), (ACTIONS 11, 1, [sym__documentation_block_comment]), (ACTIONS 6503,
       1, [anon_sym_LPAREN]), (STATE 35, 1, [sym_for_loop_parts]), (STATE 3144, 2, [sym_comment,
       sym_documentation_comment])]),
     (144162, 8, [(ACTIONS 3, 1, [anon_sym_SLASH_SLASH]), (ACTIONS 5, 1,
       [anon_sym_SLASH_STAR]), (ACTIONS 7, 1, [anon_sym_SLASH_SLASH_SLASH]), (ACTIONS 9, 1,
       [sym__block_comment]), (ACTIONS 11, 1, [sym__documentation_block_comment]), (ACTIONS 3398,
       1, [anon_sym_LPAREN]), (STATE 1585, 1, [sym_arguments]), (STATE 3145, 2, [sym_comment,
       sym_documentation_comment])]),
     (144188, 8, [(ACTIONS 3, 1, [anon_sym_SLASH_SLASH]), (ACTIONS 5, 1,
       [anon_sym_SLASH_STAR]), (ACTIONS 7, 1, [anon_sym_SLASH_SLASH_SLASH]), (ACTIONS 9, 1,
       [sym__block_comment]), (ACTIONS 11, 1, [sym__documentation_block_comment]), (ACTIONS 4124,
       1, [anon_sym_LBRACE]), (ACTIONS 4126, 1, [anon_sym_LBRACK]), (STATE 3146, 2, [sym_comment,
       sym_documentation_comment])]),
     (144214, 8, [(ACTIONS 3, 1, [anon_sym_SLASH_SLASH]), (ACTIONS 5, 1,
       [anon_sym_SLASH_STAR]), (ACTIONS 7, 1, [anon_sym_SLASH_SLASH_SLASH]), (ACTIONS 9, 1,
       [sym__block_comment]), (ACTIONS 11, 1, [sym__documentation_block_comment]), (ACTIONS 4971,
       1, [anon_sym_LBRACE]), (STATE 1734, 1, [sym_enum_body]), (STATE 3147, 2, [sym_comment,
       sym_documentation_comment])]),
     (144240, 8, [(ACTIONS 3, 1, [anon_sym_SLASH_SLASH]), (ACTIONS 5, 1,
       [anon_sym_SLASH_STAR]), (ACTIONS 7, 1, [anon_sym_SLASH_SLASH_SLASH]), (ACTIONS 9, 1,
       [sym__block_comment]), (ACTIONS 11, 1, [sym__documentation_block_comment]), (ACTIONS 474,
       1, [anon_sym_SEMI]), (STATE 551, 1, [sym__semicolon]), (STATE 3148, 2, [sym_comment,
       sym_documentation_comment])]),
     (144266, 8, [(ACTIONS 3, 1, [anon_sym_SLASH_SLASH]), (ACTIONS 5, 1,
       [anon_sym_SLASH_STAR]), (ACTIONS 7, 1, [anon_sym_SLASH_SLASH_SLASH]), (ACTIONS 9, 1,
       [sym__block_comment]), (ACTIONS 11, 1, [sym__documentation_block_comment]), (ACTIONS 6430,
       1, [anon_sym_LPAREN]), (STATE 3368, 1, [sym_parenthesized_expression]), (STATE 3149, 2,
       [sym_comment, sym_documentation_comment])])]"

lemma small_run_923: "small_run 3142 144084 ts_small_parse_table_923 3150 144292"
  by (simp add: small_simps ts_small_parse_table_923_def)

definition ts_small_parse_table_924 :: "small_group list" where
  "ts_small_parse_table_924 = [
     (144292, 8, [(ACTIONS 3, 1, [anon_sym_SLASH_SLASH]), (ACTIONS 5, 1,
       [anon_sym_SLASH_STAR]), (ACTIONS 7, 1, [anon_sym_SLASH_SLASH_SLASH]), (ACTIONS 9, 1,
       [sym__block_comment]), (ACTIONS 11, 1, [sym__documentation_block_comment]), (ACTIONS 6501,
       1, [anon_sym_COMMA]), (STATE 2894, 1, [aux_sym__record_literal_no_const_repeat1]), (STATE
       3150, 2, [sym_comment, sym_documentation_comment])]),
     (144318, 8, [(ACTIONS 3, 1, [anon_sym_SLASH_SLASH]), (ACTIONS 5, 1,
       [anon_sym_SLASH_STAR]), (ACTIONS 7, 1, [anon_sym_SLASH_SLASH_SLASH]), (ACTIONS 9, 1,
       [sym__block_comment]), (ACTIONS 11, 1, [sym__documentation_block_comment]), (ACTIONS 6438,
       1, [anon_sym_LBRACE]), (STATE 1739, 1, [sym_extension_body]), (STATE 3151, 2,
       [sym_comment, sym_documentation_comment])]),
     (144344, 8, [(ACTIONS 3, 1, [anon_sym_SLASH_SLASH]), (ACTIONS 5, 1,
       [anon_sym_SLASH_STAR]), (ACTIONS 7, 1, [anon_sym_SLASH_SLASH_SLASH]), (ACTIONS 9, 1,
       [sym__block_comment]), (ACTIONS 11, 1, [sym__documentation_block_comment]), (ACTIONS 6567,
       1, [anon_sym_LPAREN]), (STATE 3433, 1, [sym_catch_parameters]), (STATE 3152, 2,
       [sym_comment, sym_documentation_comment])]),
     (144370, 8, [(ACTIONS 3, 1, [anon_sym_SLASH_SLASH]), (ACTIONS 5, 1,
       [anon_sym_SLASH_STAR]), (ACTIONS 7, 1, [anon_sym_SLASH_SLASH_SLASH]), (ACTIONS 9, 1,
       [sym__block_comment]), (ACTIONS 11, 1, [sym__documentation_block_comment]), (ACTIONS 4833,
       1, [anon_sym_LBRACE]), (STATE 528, 1, [sym_block]), (STATE 3153, 2, [sym_comment,
       sym_documentation_comment])]),
     (144396, 8, [(ACTIONS 3, 1, [anon_sym_SLASH_SLASH]), (ACTIONS 5, 1,
       [anon_sym_SLASH_STAR]), (ACTIONS 7, 1, [anon_sym_SLASH_SLASH_SLASH]), (ACTIONS 9, 1,
       [sym__block_comment]), (ACTIONS 11, 1, [sym__documentation_block_comment]), (ACTIONS 6569,
       1, [anon_sym_DOT]), (ACTIONS 6571, 1, [anon_sym_SEMI]), (STATE 3154, 2, [sym_comment,
       sym_documentation_comment])]),
     (144422, 8, [(ACTIONS 3, 1, [anon_sym_SLASH_SLASH]), (ACTIONS 5, 1,
       [anon_sym_SLASH_STAR]), (ACTIONS 7, 1, [anon_sym_SLASH_SLASH_SLASH]), (ACTIONS 9, 1,
       [sym__block_comment]), (ACTIONS 11, 1, [sym__documentation_block_comment]), (ACTIONS 6573,
       1, [anon_sym_COMMA]), (ACTIONS 6575, 1, [anon_sym_RPAREN]), (STATE 3155, 2, [sym_comment,
       sym_documentation_comment])]),
     (144448, 8, [(ACTIONS 3, 1, [anon_sym_SLASH_SLASH]), (ACTIONS 5, 1,
       [anon_sym_SLASH_STAR]), (ACTIONS 7, 1, [anon_sym_SLASH_SLASH_SLASH]), (ACTIONS 9, 1,
       [sym__block_comment]), (ACTIONS 11, 1, [sym__documentation_block_comment]), (ACTIONS 5696,
       1, [anon_sym_LBRACE]), (STATE 492, 1, [sym_block]), (STATE 3156, 2, [sym_comment,
       sym_documentation_comment])]),
     (144474, 8, [(ACTIONS 3, 1, [anon_sym_SLASH_SLASH]), (ACTIONS 5, 1,
       [anon_sym_SLASH_STAR]), (ACTIONS 7, 1, [anon_sym_SLASH_SLASH_SLASH]), (ACTIONS 9, 1,
       [sym__block_comment]), (ACTIONS 11, 1, [sym__documentation_block_comment]), (ACTIONS 4578,
       1, [anon_sym_LBRACE]), (STATE 1740, 1, [sym_class_body]), (STATE 3157, 2, [sym_comment,
       sym_documentation_comment])])]"

lemma small_run_924: "small_run 3150 144292 ts_small_parse_table_924 3158 144500"
  by (simp add: small_simps ts_small_parse_table_924_def)

definition ts_small_parse_table_925 :: "small_group list" where
  "ts_small_parse_table_925 = [
     (144500, 8, [(ACTIONS 3, 1, [anon_sym_SLASH_SLASH]), (ACTIONS 5, 1,
       [anon_sym_SLASH_STAR]), (ACTIONS 7, 1, [anon_sym_SLASH_SLASH_SLASH]), (ACTIONS 9, 1,
       [sym__block_comment]), (ACTIONS 11, 1, [sym__documentation_block_comment]), (ACTIONS 4303,
       1, [anon_sym_LBRACK]), (STATE 970, 1, [sym_index_selector]), (STATE 3158, 2, [sym_comment,
       sym_documentation_comment])]),
     (144526, 7, [(ACTIONS 3, 1, [anon_sym_SLASH_SLASH]), (ACTIONS 5, 1,
       [anon_sym_SLASH_STAR]), (ACTIONS 7, 1, [anon_sym_SLASH_SLASH_SLASH]), (ACTIONS 9, 1,
       [sym__block_comment]), (ACTIONS 11, 1, [sym__documentation_block_comment]), (ACTIONS 6577,
       2, [anon_sym_COMMA, anon_sym_RPAREN]), (STATE 3159, 2, [sym_comment,
       sym_documentation_comment])]),
     (144550, 8, [(ACTIONS 3, 1, [anon_sym_SLASH_SLASH]), (ACTIONS 5, 1,
       [anon_sym_SLASH_STAR]), (ACTIONS 7, 1, [anon_sym_SLASH_SLASH_SLASH]), (ACTIONS 9, 1,
       [sym__block_comment]), (ACTIONS 11, 1, [sym__documentation_block_comment]), (ACTIONS 474,
       1, [anon_sym_SEMI]), (STATE 512, 1, [sym__semicolon]), (STATE 3160, 2, [sym_comment,
       sym_documentation_comment])]),
     (144576, 8, [(ACTIONS 3, 1, [anon_sym_SLASH_SLASH]), (ACTIONS 5, 1,
       [anon_sym_SLASH_STAR]), (ACTIONS 7, 1, [anon_sym_SLASH_SLASH_SLASH]), (ACTIONS 9, 1,
       [sym__block_comment]), (ACTIONS 11, 1, [sym__documentation_block_comment]), (ACTIONS 6579,
       1, [anon_sym_LBRACE]), (ACTIONS 6581, 1, [anon_sym_LBRACK]), (STATE 3161, 2, [sym_comment,
       sym_documentation_comment])]),
     (144602, 8, [(ACTIONS 3, 1, [anon_sym_SLASH_SLASH]), (ACTIONS 5, 1,
       [anon_sym_SLASH_STAR]), (ACTIONS 7, 1, [anon_sym_SLASH_SLASH_SLASH]), (ACTIONS 9, 1,
       [sym__block_comment]), (ACTIONS 11, 1, [sym__documentation_block_comment]), (ACTIONS 4349,
       1, [sym_increment_operator]), (STATE 1496, 1, [sym_postfix_operator]), (STATE 3162, 2,
       [sym_comment, sym_documentation_comment])]),
     (144628, 8, [(ACTIONS 3, 1, [anon_sym_SLASH_SLASH]), (ACTIONS 5, 1,
       [anon_sym_SLASH_STAR]), (ACTIONS 7, 1, [anon_sym_SLASH_SLASH_SLASH]), (ACTIONS 9, 1,
       [sym__block_comment]), (ACTIONS 11, 1, [sym__documentation_block_comment]), (ACTIONS 6583,
       1, [anon_sym_LBRACE]), (ACTIONS 6585, 1, [anon_sym_LBRACK]), (STATE 3163, 2, [sym_comment,
       sym_documentation_comment])]),
     (144654, 8, [(ACTIONS 3, 1, [anon_sym_SLASH_SLASH]), (ACTIONS 5, 1,
       [anon_sym_SLASH_STAR]), (ACTIONS 7, 1, [anon_sym_SLASH_SLASH_SLASH]), (ACTIONS 9, 1,
       [sym__block_comment]), (ACTIONS 11, 1, [sym__documentation_block_comment]), (ACTIONS 6503,
       1, [anon_sym_LPAREN]), (STATE 33, 1, [sym_for_loop_parts]), (STATE 3164, 2, [sym_comment,
       sym_documentation_comment])]),
     (144680, 8, [(ACTIONS 3, 1, [anon_sym_SLASH_SLASH]), (ACTIONS 5, 1,
       [anon_sym_SLASH_STAR]), (ACTIONS 7, 1, [anon_sym_SLASH_SLASH_SLASH]), (ACTIONS 9, 1,
       [sym__block_comment]), (ACTIONS 11, 1, [sym__documentation_block_comment]), (ACTIONS 6503,
       1, [anon_sym_LPAREN]), (STATE 150, 1, [sym_for_loop_parts]), (STATE 3165, 2, [sym_comment,
       sym_documentation_comment])])]"

lemma small_run_925: "small_run 3158 144500 ts_small_parse_table_925 3166 144706"
  by (simp add: small_simps ts_small_parse_table_925_def)

definition ts_small_parse_table_926 :: "small_group list" where
  "ts_small_parse_table_926 = [
     (144706, 8, [(ACTIONS 3, 1, [anon_sym_SLASH_SLASH]), (ACTIONS 5, 1,
       [anon_sym_SLASH_STAR]), (ACTIONS 7, 1, [anon_sym_SLASH_SLASH_SLASH]), (ACTIONS 9, 1,
       [sym__block_comment]), (ACTIONS 11, 1, [sym__documentation_block_comment]), (ACTIONS 4578,
       1, [anon_sym_LBRACE]), (STATE 1742, 1, [sym_class_body]), (STATE 3166, 2, [sym_comment,
       sym_documentation_comment])]),
     (144732, 8, [(ACTIONS 3, 1, [anon_sym_SLASH_SLASH]), (ACTIONS 5, 1,
       [anon_sym_SLASH_STAR]), (ACTIONS 7, 1, [anon_sym_SLASH_SLASH_SLASH]), (ACTIONS 9, 1,
       [sym__block_comment]), (ACTIONS 11, 1, [sym__documentation_block_comment]), (ACTIONS 6587,
       1, [anon_sym_LPAREN]), (STATE 30, 1, [sym_parenthesized_expression]), (STATE 3167, 2,
       [sym_comment, sym_documentation_comment])]),
     (144758, 7, [(ACTIONS 3, 1, [anon_sym_SLASH_SLASH]), (ACTIONS 5, 1,
       [anon_sym_SLASH_STAR]), (ACTIONS 7, 1, [anon_sym_SLASH_SLASH_SLASH]), (ACTIONS 9, 1,
       [sym__block_comment]), (ACTIONS 11, 1, [sym__documentation_block_comment]), (ACTIONS 6589,
       2, [anon_sym_COMMA, anon_sym_RBRACK]), (STATE 3168, 2, [sym_comment,
       sym_documentation_comment])]),
     (144782, 8, [(ACTIONS 3, 1, [anon_sym_SLASH_SLASH]), (ACTIONS 5, 1,
       [anon_sym_SLASH_STAR]), (ACTIONS 7, 1, [anon_sym_SLASH_SLASH_SLASH]), (ACTIONS 9, 1,
       [sym__block_comment]), (ACTIONS 11, 1, [sym__documentation_block_comment]), (ACTIONS 6591,
       1, [anon_sym_COMMA]), (ACTIONS 6594, 1, [anon_sym_RPAREN]), (STATE 3169, 2, [sym_comment,
       sym_documentation_comment])]),
     (144808, 8, [(ACTIONS 3, 1, [anon_sym_SLASH_SLASH]), (ACTIONS 5, 1,
       [anon_sym_SLASH_STAR]), (ACTIONS 7, 1, [anon_sym_SLASH_SLASH_SLASH]), (ACTIONS 9, 1,
       [sym__block_comment]), (ACTIONS 11, 1, [sym__documentation_block_comment]), (ACTIONS 6596,
       1, [anon_sym_new]), (STATE 862, 1, [sym__new_builtin]), (STATE 3170, 2, [sym_comment,
       sym_documentation_comment])]),
     (144834, 8, [(ACTIONS 3, 1, [anon_sym_SLASH_SLASH]), (ACTIONS 5, 1,
       [anon_sym_SLASH_STAR]), (ACTIONS 7, 1, [anon_sym_SLASH_SLASH_SLASH]), (ACTIONS 9, 1,
       [sym__block_comment]), (ACTIONS 11, 1, [sym__documentation_block_comment]), (ACTIONS 6598,
       1, [anon_sym_LBRACE]), (ACTIONS 6600, 1, [anon_sym_LBRACK]), (STATE 3171, 2, [sym_comment,
       sym_documentation_comment])]),
     (144860, 7, [(ACTIONS 3, 1, [anon_sym_SLASH_SLASH]), (ACTIONS 5, 1,
       [anon_sym_SLASH_STAR]), (ACTIONS 7, 1, [anon_sym_SLASH_SLASH_SLASH]), (ACTIONS 9, 1,
       [sym__block_comment]), (ACTIONS 11, 1, [sym__documentation_block_comment]), (ACTIONS 6602,
       2, [anon_sym_RBRACE, anon_sym_COMMA]), (STATE 3172, 2, [sym_comment,
       sym_documentation_comment])]),
     (144884, 8, [(ACTIONS 3, 1, [anon_sym_SLASH_SLASH]), (ACTIONS 5, 1,
       [anon_sym_SLASH_STAR]), (ACTIONS 7, 1, [anon_sym_SLASH_SLASH_SLASH]), (ACTIONS 9, 1,
       [sym__block_comment]), (ACTIONS 11, 1, [sym__documentation_block_comment]), (ACTIONS 6604,
       1, [anon_sym_RPAREN]), (ACTIONS 6606, 1, [anon_sym_case]), (STATE 3173, 2, [sym_comment,
       sym_documentation_comment])])]"

lemma small_run_926: "small_run 3166 144706 ts_small_parse_table_926 3174 144910"
  by (simp add: small_simps ts_small_parse_table_926_def)

definition ts_small_parse_table_927 :: "small_group list" where
  "ts_small_parse_table_927 = [
     (144910, 8, [(ACTIONS 3, 1, [anon_sym_SLASH_SLASH]), (ACTIONS 5, 1,
       [anon_sym_SLASH_STAR]), (ACTIONS 7, 1, [anon_sym_SLASH_SLASH_SLASH]), (ACTIONS 9, 1,
       [sym__block_comment]), (ACTIONS 11, 1, [sym__documentation_block_comment]), (ACTIONS 5444,
       1, [anon_sym_LBRACK]), (STATE 638, 1, [sym_index_selector]), (STATE 3174, 2, [sym_comment,
       sym_documentation_comment])]),
     (144936, 8, [(ACTIONS 3, 1, [anon_sym_SLASH_SLASH]), (ACTIONS 5, 1,
       [anon_sym_SLASH_STAR]), (ACTIONS 7, 1, [anon_sym_SLASH_SLASH_SLASH]), (ACTIONS 9, 1,
       [sym__block_comment]), (ACTIONS 11, 1, [sym__documentation_block_comment]), (ACTIONS 2214,
       1, [anon_sym_LBRACK]), (STATE 614, 1, [sym_index_selector]), (STATE 3175, 2, [sym_comment,
       sym_documentation_comment])]),
     (144962, 8, [(ACTIONS 3, 1, [anon_sym_SLASH_SLASH]), (ACTIONS 5, 1,
       [anon_sym_SLASH_STAR]), (ACTIONS 7, 1, [anon_sym_SLASH_SLASH_SLASH]), (ACTIONS 9, 1,
       [sym__block_comment]), (ACTIONS 11, 1, [sym__documentation_block_comment]), (ACTIONS 474,
       1, [anon_sym_SEMI]), (STATE 511, 1, [sym__semicolon]), (STATE 3176, 2, [sym_comment,
       sym_documentation_comment])]),
     (144988, 8, [(ACTIONS 3, 1, [anon_sym_SLASH_SLASH]), (ACTIONS 5, 1,
       [anon_sym_SLASH_STAR]), (ACTIONS 7, 1, [anon_sym_SLASH_SLASH_SLASH]), (ACTIONS 9, 1,
       [sym__block_comment]), (ACTIONS 11, 1, [sym__documentation_block_comment]), (ACTIONS 6503,
       1, [anon_sym_LPAREN]), (STATE 8, 1, [sym_for_loop_parts]), (STATE 3177, 2, [sym_comment,
       sym_documentation_comment])]),
     (145014, 8, [(ACTIONS 3, 1, [anon_sym_SLASH_SLASH]), (ACTIONS 5, 1,
       [anon_sym_SLASH_STAR]), (ACTIONS 7, 1, [anon_sym_SLASH_SLASH_SLASH]), (ACTIONS 9, 1,
       [sym__block_comment]), (ACTIONS 11, 1, [sym__documentation_block_comment]), (ACTIONS 474,
       1, [anon_sym_SEMI]), (STATE 1767, 1, [sym__semicolon]), (STATE 3178, 2, [sym_comment,
       sym_documentation_comment])]),
     (145040, 8, [(ACTIONS 3, 1, [anon_sym_SLASH_SLASH]), (ACTIONS 5, 1,
       [anon_sym_SLASH_STAR]), (ACTIONS 7, 1, [anon_sym_SLASH_SLASH_SLASH]), (ACTIONS 9, 1,
       [sym__block_comment]), (ACTIONS 11, 1, [sym__documentation_block_comment]), (ACTIONS 4341,
       1, [anon_sym_LBRACK]), (STATE 1112, 1, [sym_index_selector]), (STATE 3179, 2,
       [sym_comment, sym_documentation_comment])]),
     (145066, 7, [(ACTIONS 3, 1, [anon_sym_SLASH_SLASH]), (ACTIONS 5, 1,
       [anon_sym_SLASH_STAR]), (ACTIONS 7, 1, [anon_sym_SLASH_SLASH_SLASH]), (ACTIONS 9, 1,
       [sym__block_comment]), (ACTIONS 11, 1, [sym__documentation_block_comment]), (ACTIONS 6608,
       2, [anon_sym_COMMA, anon_sym_SEMI]), (STATE 3180, 2, [sym_comment,
       sym_documentation_comment])]),
     (145090, 8, [(ACTIONS 3, 1, [anon_sym_SLASH_SLASH]), (ACTIONS 5, 1,
       [anon_sym_SLASH_STAR]), (ACTIONS 7, 1, [anon_sym_SLASH_SLASH_SLASH]), (ACTIONS 9, 1,
       [sym__block_comment]), (ACTIONS 11, 1, [sym__documentation_block_comment]), (ACTIONS 2158,
       1, [anon_sym_LBRACK]), (STATE 1052, 1, [sym_index_selector]), (STATE 3181, 2,
       [sym_comment, sym_documentation_comment])])]"

lemma small_run_927: "small_run 3174 144910 ts_small_parse_table_927 3182 145116"
  by (simp add: small_simps ts_small_parse_table_927_def)

definition ts_small_parse_table_928 :: "small_group list" where
  "ts_small_parse_table_928 = [
     (145116, 7, [(ACTIONS 3, 1, [anon_sym_SLASH_SLASH]), (ACTIONS 5, 1,
       [anon_sym_SLASH_STAR]), (ACTIONS 7, 1, [anon_sym_SLASH_SLASH_SLASH]), (ACTIONS 9, 1,
       [sym__block_comment]), (ACTIONS 11, 1, [sym__documentation_block_comment]), (ACTIONS 4721,
       2, [anon_sym_EQ, anon_sym_in]), (STATE 3182, 2, [sym_comment,
       sym_documentation_comment])]),
     (145140, 8, [(ACTIONS 3, 1, [anon_sym_SLASH_SLASH]), (ACTIONS 5, 1,
       [anon_sym_SLASH_STAR]), (ACTIONS 7, 1, [anon_sym_SLASH_SLASH_SLASH]), (ACTIONS 9, 1,
       [sym__block_comment]), (ACTIONS 11, 1, [sym__documentation_block_comment]), (ACTIONS 5465,
       1, [anon_sym_LBRACK]), (STATE 584, 1, [sym_index_selector]), (STATE 3183, 2, [sym_comment,
       sym_documentation_comment])]),
     (145166, 7, [(ACTIONS 3, 1, [anon_sym_SLASH_SLASH]), (ACTIONS 5, 1,
       [anon_sym_SLASH_STAR]), (ACTIONS 7, 1, [anon_sym_SLASH_SLASH_SLASH]), (ACTIONS 9, 1,
       [sym__block_comment]), (ACTIONS 11, 1, [sym__documentation_block_comment]), (ACTIONS 5752,
       2, [anon_sym_COMMA, anon_sym_RPAREN]), (STATE 3184, 2, [sym_comment,
       sym_documentation_comment])]),
     (145190, 8, [(ACTIONS 3, 1, [anon_sym_SLASH_SLASH]), (ACTIONS 5, 1,
       [anon_sym_SLASH_STAR]), (ACTIONS 7, 1, [anon_sym_SLASH_SLASH_SLASH]), (ACTIONS 9, 1,
       [sym__block_comment]), (ACTIONS 11, 1, [sym__documentation_block_comment]), (ACTIONS 4578,
       1, [anon_sym_LBRACE]), (STATE 1761, 1, [sym_class_body]), (STATE 3185, 2, [sym_comment,
       sym_documentation_comment])]),
     (145216, 8, [(ACTIONS 3, 1, [anon_sym_SLASH_SLASH]), (ACTIONS 5, 1,
       [anon_sym_SLASH_STAR]), (ACTIONS 7, 1, [anon_sym_SLASH_SLASH_SLASH]), (ACTIONS 9, 1,
       [sym__block_comment]), (ACTIONS 11, 1, [sym__documentation_block_comment]), (ACTIONS 4578,
       1, [anon_sym_LBRACE]), (STATE 1758, 1, [sym_class_body]), (STATE 3186, 2, [sym_comment,
       sym_documentation_comment])]),
     (145242, 8, [(ACTIONS 3, 1, [anon_sym_SLASH_SLASH]), (ACTIONS 5, 1,
       [anon_sym_SLASH_STAR]), (ACTIONS 7, 1, [anon_sym_SLASH_SLASH_SLASH]), (ACTIONS 9, 1,
       [sym__block_comment]), (ACTIONS 11, 1, [sym__documentation_block_comment]), (ACTIONS 4578,
       1, [anon_sym_LBRACE]), (STATE 1756, 1, [sym_class_body]), (STATE 3187, 2, [sym_comment,
       sym_documentation_comment])]),
     (145268, 8, [(ACTIONS 3, 1, [anon_sym_SLASH_SLASH]), (ACTIONS 5, 1,
       [anon_sym_SLASH_STAR]), (ACTIONS 7, 1, [anon_sym_SLASH_SLASH_SLASH]), (ACTIONS 9, 1,
       [sym__block_comment]), (ACTIONS 11, 1, [sym__documentation_block_comment]), (ACTIONS 6610,
       1, [anon_sym_COMMA]), (ACTIONS 6613, 1, [anon_sym_RPAREN]), (STATE 3188, 2, [sym_comment,
       sym_documentation_comment])]),
     (145294, 8, [(ACTIONS 3, 1, [anon_sym_SLASH_SLASH]), (ACTIONS 5, 1,
       [anon_sym_SLASH_STAR]), (ACTIONS 7, 1, [anon_sym_SLASH_SLASH_SLASH]), (ACTIONS 9, 1,
       [sym__block_comment]), (ACTIONS 11, 1, [sym__documentation_block_comment]), (ACTIONS 4460,
       1, [anon_sym_LPAREN]), (ACTIONS 6615, 1, [anon_sym_EQ]), (STATE 3189, 2, [sym_comment,
       sym_documentation_comment])])]"

lemma small_run_928: "small_run 3182 145116 ts_small_parse_table_928 3190 145320"
  by (simp add: small_simps ts_small_parse_table_928_def)

definition ts_small_parse_table_929 :: "small_group list" where
  "ts_small_parse_table_929 = [
     (145320, 7, [(ACTIONS 3, 1, [anon_sym_SLASH_SLASH]), (ACTIONS 5, 1,
       [anon_sym_SLASH_STAR]), (ACTIONS 7, 1, [anon_sym_SLASH_SLASH_SLASH]), (ACTIONS 9, 1,
       [sym__block_comment]), (ACTIONS 11, 1, [sym__documentation_block_comment]), (ACTIONS 5988,
       2, [anon_sym_COMMA, anon_sym_RPAREN]), (STATE 3190, 2, [sym_comment,
       sym_documentation_comment])]),
     (145344, 7, [(ACTIONS 3, 1, [anon_sym_SLASH_SLASH]), (ACTIONS 5, 1,
       [anon_sym_SLASH_STAR]), (ACTIONS 7, 1, [anon_sym_SLASH_SLASH_SLASH]), (ACTIONS 9, 1,
       [sym__block_comment]), (ACTIONS 11, 1, [sym__documentation_block_comment]), (ACTIONS 6617,
       2, [anon_sym_RBRACE, anon_sym_COMMA]), (STATE 3191, 2, [sym_comment,
       sym_documentation_comment])]),
     (145368, 8, [(ACTIONS 3, 1, [anon_sym_SLASH_SLASH]), (ACTIONS 5, 1,
       [anon_sym_SLASH_STAR]), (ACTIONS 7, 1, [anon_sym_SLASH_SLASH_SLASH]), (ACTIONS 9, 1,
       [sym__block_comment]), (ACTIONS 11, 1, [sym__documentation_block_comment]), (ACTIONS 6438,
       1, [anon_sym_LBRACE]), (STATE 1733, 1, [sym_extension_body]), (STATE 3192, 2,
       [sym_comment, sym_documentation_comment])]),
     (145394, 8, [(ACTIONS 3, 1, [anon_sym_SLASH_SLASH]), (ACTIONS 5, 1,
       [anon_sym_SLASH_STAR]), (ACTIONS 7, 1, [anon_sym_SLASH_SLASH_SLASH]), (ACTIONS 9, 1,
       [sym__block_comment]), (ACTIONS 11, 1, [sym__documentation_block_comment]), (ACTIONS 4971,
       1, [anon_sym_LBRACE]), (STATE 1735, 1, [sym_enum_body]), (STATE 3193, 2, [sym_comment,
       sym_documentation_comment])]),
     (145420, 8, [(ACTIONS 3, 1, [anon_sym_SLASH_SLASH]), (ACTIONS 5, 1,
       [anon_sym_SLASH_STAR]), (ACTIONS 7, 1, [anon_sym_SLASH_SLASH_SLASH]), (ACTIONS 9, 1,
       [sym__block_comment]), (ACTIONS 11, 1, [sym__documentation_block_comment]), (ACTIONS 4365,
       1, [sym_increment_operator]), (STATE 1378, 1, [sym_postfix_operator]), (STATE 3194, 2,
       [sym_comment, sym_documentation_comment])]),
     (145446, 8, [(ACTIONS 3, 1, [anon_sym_SLASH_SLASH]), (ACTIONS 5, 1,
       [anon_sym_SLASH_STAR]), (ACTIONS 7, 1, [anon_sym_SLASH_SLASH_SLASH]), (ACTIONS 9, 1,
       [sym__block_comment]), (ACTIONS 11, 1, [sym__documentation_block_comment]), (ACTIONS 6619,
       1, [sym_identifier]), (STATE 1777, 1, [sym_mixin_application_class]), (STATE 3195, 2,
       [sym_comment, sym_documentation_comment])]),
     (145472, 8, [(ACTIONS 3, 1, [anon_sym_SLASH_SLASH]), (ACTIONS 5, 1,
       [anon_sym_SLASH_STAR]), (ACTIONS 7, 1, [anon_sym_SLASH_SLASH_SLASH]), (ACTIONS 9, 1,
       [sym__block_comment]), (ACTIONS 11, 1, [sym__documentation_block_comment]), (ACTIONS 6621,
       1, [anon_sym_LBRACK]), (STATE 2423, 1, [sym_index_selector]), (STATE 3196, 2,
       [sym_comment, sym_documentation_comment])]),
     (145498, 8, [(ACTIONS 3, 1, [anon_sym_SLASH_SLASH]), (ACTIONS 5, 1,
       [anon_sym_SLASH_STAR]), (ACTIONS 7, 1, [anon_sym_SLASH_SLASH_SLASH]), (ACTIONS 9, 1,
       [sym__block_comment]), (ACTIONS 11, 1, [sym__documentation_block_comment]), (ACTIONS 4578,
       1, [anon_sym_LBRACE]), (STATE 1736, 1, [sym_class_body]), (STATE 3197, 2, [sym_comment,
       sym_documentation_comment])])]"

lemma small_run_929: "small_run 3190 145320 ts_small_parse_table_929 3198 145524"
  by (simp add: small_simps ts_small_parse_table_929_def)

definition ts_small_parse_table_930 :: "small_group list" where
  "ts_small_parse_table_930 = [
     (145524, 8, [(ACTIONS 3, 1, [anon_sym_SLASH_SLASH]), (ACTIONS 5, 1,
       [anon_sym_SLASH_STAR]), (ACTIONS 7, 1, [anon_sym_SLASH_SLASH_SLASH]), (ACTIONS 9, 1,
       [sym__block_comment]), (ACTIONS 11, 1, [sym__documentation_block_comment]), (ACTIONS 6623,
       1, [anon_sym_DOT]), (ACTIONS 6625, 1, [anon_sym_SEMI]), (STATE 3198, 2, [sym_comment,
       sym_documentation_comment])]),
     (145550, 8, [(ACTIONS 3, 1, [anon_sym_SLASH_SLASH]), (ACTIONS 5, 1,
       [anon_sym_SLASH_STAR]), (ACTIONS 7, 1, [anon_sym_SLASH_SLASH_SLASH]), (ACTIONS 9, 1,
       [sym__block_comment]), (ACTIONS 11, 1, [sym__documentation_block_comment]), (ACTIONS 474,
       1, [anon_sym_SEMI]), (STATE 1737, 1, [sym__semicolon]), (STATE 3199, 2, [sym_comment,
       sym_documentation_comment])]),
     (145576, 8, [(ACTIONS 3, 1, [anon_sym_SLASH_SLASH]), (ACTIONS 5, 1,
       [anon_sym_SLASH_STAR]), (ACTIONS 7, 1, [anon_sym_SLASH_SLASH_SLASH]), (ACTIONS 9, 1,
       [sym__block_comment]), (ACTIONS 11, 1, [sym__documentation_block_comment]), (ACTIONS 6627,
       1, [anon_sym_LBRACE]), (ACTIONS 6629, 1, [anon_sym_LBRACK]), (STATE 3200, 2, [sym_comment,
       sym_documentation_comment])]),
     (145602, 8, [(ACTIONS 3, 1, [anon_sym_SLASH_SLASH]), (ACTIONS 5, 1,
       [anon_sym_SLASH_STAR]), (ACTIONS 7, 1, [anon_sym_SLASH_SLASH_SLASH]), (ACTIONS 9, 1,
       [sym__block_comment]), (ACTIONS 11, 1, [sym__documentation_block_comment]), (ACTIONS 2320,
       1, [anon_sym_LBRACK]), (STATE 1197, 1, [sym_index_selector]), (STATE 3201, 2,
       [sym_comment, sym_documentation_comment])]),
     (145628, 8, [(ACTIONS 3, 1, [anon_sym_SLASH_SLASH]), (ACTIONS 5, 1,
       [anon_sym_SLASH_STAR]), (ACTIONS 7, 1, [anon_sym_SLASH_SLASH_SLASH]), (ACTIONS 9, 1,
       [sym__block_comment]), (ACTIONS 11, 1, [sym__documentation_block_comment]), (ACTIONS 5242,
       1, [anon_sym_LBRACE]), (STATE 921, 1, [sym_block]), (STATE 3202, 2, [sym_comment,
       sym_documentation_comment])]),
     (145654, 8, [(ACTIONS 3, 1, [anon_sym_SLASH_SLASH]), (ACTIONS 5, 1,
       [anon_sym_SLASH_STAR]), (ACTIONS 7, 1, [anon_sym_SLASH_SLASH_SLASH]), (ACTIONS 9, 1,
       [sym__block_comment]), (ACTIONS 11, 1, [sym__documentation_block_comment]), (ACTIONS 474,
       1, [anon_sym_SEMI]), (STATE 519, 1, [sym__semicolon]), (STATE 3203, 2, [sym_comment,
       sym_documentation_comment])]),
     (145680, 7, [(ACTIONS 3, 1, [anon_sym_SLASH_SLASH]), (ACTIONS 5, 1,
       [anon_sym_SLASH_STAR]), (ACTIONS 7, 1, [anon_sym_SLASH_SLASH_SLASH]), (ACTIONS 9, 1,
       [sym__block_comment]), (ACTIONS 11, 1, [sym__documentation_block_comment]), (ACTIONS 6631,
       2, [anon_sym_LBRACE, anon_sym_implements]), (STATE 3204, 2, [sym_comment,
       sym_documentation_comment])]),
     (145704, 8, [(ACTIONS 3, 1, [anon_sym_SLASH_SLASH]), (ACTIONS 5, 1,
       [anon_sym_SLASH_STAR]), (ACTIONS 7, 1, [anon_sym_SLASH_SLASH_SLASH]), (ACTIONS 9, 1,
       [sym__block_comment]), (ACTIONS 11, 1, [sym__documentation_block_comment]), (ACTIONS 5282,
       1, [anon_sym_LBRACE]), (STATE 1142, 1, [sym_block]), (STATE 3205, 2, [sym_comment,
       sym_documentation_comment])])]"

lemma small_run_930: "small_run 3198 145524 ts_small_parse_table_930 3206 145730"
  by (simp add: small_simps ts_small_parse_table_930_def)

definition ts_small_parse_table_931 :: "small_group list" where
  "ts_small_parse_table_931 = [
     (145730, 8, [(ACTIONS 3, 1, [anon_sym_SLASH_SLASH]), (ACTIONS 5, 1,
       [anon_sym_SLASH_STAR]), (ACTIONS 7, 1, [anon_sym_SLASH_SLASH_SLASH]), (ACTIONS 9, 1,
       [sym__block_comment]), (ACTIONS 11, 1, [sym__documentation_block_comment]), (ACTIONS 4333,
       1, [anon_sym_LBRACK]), (STATE 1230, 1, [sym_index_selector]), (STATE 3206, 2,
       [sym_comment, sym_documentation_comment])]),
     (145756, 8, [(ACTIONS 3, 1, [anon_sym_SLASH_SLASH]), (ACTIONS 5, 1,
       [anon_sym_SLASH_STAR]), (ACTIONS 7, 1, [anon_sym_SLASH_SLASH_SLASH]), (ACTIONS 9, 1,
       [sym__block_comment]), (ACTIONS 11, 1, [sym__documentation_block_comment]), (ACTIONS 6633,
       1, [anon_sym_RPAREN]), (ACTIONS 6635, 1, [anon_sym_case]), (STATE 3207, 2, [sym_comment,
       sym_documentation_comment])]),
     (145782, 8, [(ACTIONS 3, 1, [anon_sym_SLASH_SLASH]), (ACTIONS 5, 1,
       [anon_sym_SLASH_STAR]), (ACTIONS 7, 1, [anon_sym_SLASH_SLASH_SLASH]), (ACTIONS 9, 1,
       [sym__block_comment]), (ACTIONS 11, 1, [sym__documentation_block_comment]), (ACTIONS 6637,
       1, [anon_sym_LPAREN]), (STATE 2429, 1, [sym_assertion_arguments]), (STATE 3208, 2,
       [sym_comment, sym_documentation_comment])]),
     (145808, 8, [(ACTIONS 3, 1, [anon_sym_SLASH_SLASH]), (ACTIONS 5, 1,
       [anon_sym_SLASH_STAR]), (ACTIONS 7, 1, [anon_sym_SLASH_SLASH_SLASH]), (ACTIONS 9, 1,
       [sym__block_comment]), (ACTIONS 11, 1, [sym__documentation_block_comment]), (ACTIONS 3157,
       1, [anon_sym_LPAREN]), (STATE 1370, 1, [sym_arguments]), (STATE 3209, 2, [sym_comment,
       sym_documentation_comment])]),
     (145834, 8, [(ACTIONS 3, 1, [anon_sym_SLASH_SLASH]), (ACTIONS 5, 1,
       [anon_sym_SLASH_STAR]), (ACTIONS 7, 1, [anon_sym_SLASH_SLASH_SLASH]), (ACTIONS 9, 1,
       [sym__block_comment]), (ACTIONS 11, 1, [sym__documentation_block_comment]), (ACTIONS 6503,
       1, [anon_sym_LPAREN]), (STATE 36, 1, [sym_for_loop_parts]), (STATE 3210, 2, [sym_comment,
       sym_documentation_comment])]),
     (145860, 8, [(ACTIONS 3, 1, [anon_sym_SLASH_SLASH]), (ACTIONS 5, 1,
       [anon_sym_SLASH_STAR]), (ACTIONS 7, 1, [anon_sym_SLASH_SLASH_SLASH]), (ACTIONS 9, 1,
       [sym__block_comment]), (ACTIONS 11, 1, [sym__documentation_block_comment]), (ACTIONS 4606,
       1, [anon_sym_LPAREN]), (ACTIONS 4608, 1, [anon_sym_DOT]), (STATE 3211, 2, [sym_comment,
       sym_documentation_comment])]),
     (145886, 7, [(ACTIONS 3, 1, [anon_sym_SLASH_SLASH]), (ACTIONS 5, 1,
       [anon_sym_SLASH_STAR]), (ACTIONS 7, 1, [anon_sym_SLASH_SLASH_SLASH]), (ACTIONS 9, 1,
       [sym__block_comment]), (ACTIONS 11, 1, [sym__documentation_block_comment]), (ACTIONS 6035,
       2, [anon_sym_RBRACE, anon_sym_COMMA]), (STATE 3212, 2, [sym_comment,
       sym_documentation_comment])]),
     (145910, 8, [(ACTIONS 3, 1, [anon_sym_SLASH_SLASH]), (ACTIONS 5, 1,
       [anon_sym_SLASH_STAR]), (ACTIONS 7, 1, [anon_sym_SLASH_SLASH_SLASH]), (ACTIONS 9, 1,
       [sym__block_comment]), (ACTIONS 11, 1, [sym__documentation_block_comment]), (ACTIONS 5696,
       1, [anon_sym_LBRACE]), (STATE 486, 1, [sym_block]), (STATE 3213, 2, [sym_comment,
       sym_documentation_comment])])]"

lemma small_run_931: "small_run 3206 145730 ts_small_parse_table_931 3214 145936"
  by (simp add: small_simps ts_small_parse_table_931_def)

definition ts_small_parse_table_932 :: "small_group list" where
  "ts_small_parse_table_932 = [
     (145936, 8, [(ACTIONS 3, 1, [anon_sym_SLASH_SLASH]), (ACTIONS 5, 1,
       [anon_sym_SLASH_STAR]), (ACTIONS 7, 1, [anon_sym_SLASH_SLASH_SLASH]), (ACTIONS 9, 1,
       [sym__block_comment]), (ACTIONS 11, 1, [sym__documentation_block_comment]), (ACTIONS 6587,
       1, [anon_sym_LPAREN]), (STATE 39, 1, [sym_parenthesized_expression]), (STATE 3214, 2,
       [sym_comment, sym_documentation_comment])]),
     (145962, 8, [(ACTIONS 3, 1, [anon_sym_SLASH_SLASH]), (ACTIONS 5, 1,
       [anon_sym_SLASH_STAR]), (ACTIONS 7, 1, [anon_sym_SLASH_SLASH_SLASH]), (ACTIONS 9, 1,
       [sym__block_comment]), (ACTIONS 11, 1, [sym__documentation_block_comment]), (ACTIONS 2419,
       1, [anon_sym_LBRACK]), (STATE 1124, 1, [sym_index_selector]), (STATE 3215, 2,
       [sym_comment, sym_documentation_comment])]),
     (145988, 8, [(ACTIONS 3, 1, [anon_sym_SLASH_SLASH]), (ACTIONS 5, 1,
       [anon_sym_SLASH_STAR]), (ACTIONS 7, 1, [anon_sym_SLASH_SLASH_SLASH]), (ACTIONS 9, 1,
       [sym__block_comment]), (ACTIONS 11, 1, [sym__documentation_block_comment]), (ACTIONS 6430,
       1, [anon_sym_LPAREN]), (STATE 3123, 1, [sym_parenthesized_expression]), (STATE 3216, 2,
       [sym_comment, sym_documentation_comment])]),
     (146014, 8, [(ACTIONS 3, 1, [anon_sym_SLASH_SLASH]), (ACTIONS 5, 1,
       [anon_sym_SLASH_STAR]), (ACTIONS 7, 1, [anon_sym_SLASH_SLASH_SLASH]), (ACTIONS 9, 1,
       [sym__block_comment]), (ACTIONS 11, 1, [sym__documentation_block_comment]), (ACTIONS 474,
       1, [anon_sym_SEMI]), (STATE 449, 1, [sym__semicolon]), (STATE 3217, 2, [sym_comment,
       sym_documentation_comment])]),
     (146040, 8, [(ACTIONS 3, 1, [anon_sym_SLASH_SLASH]), (ACTIONS 5, 1,
       [anon_sym_SLASH_STAR]), (ACTIONS 7, 1, [anon_sym_SLASH_SLASH_SLASH]), (ACTIONS 9, 1,
       [sym__block_comment]), (ACTIONS 11, 1, [sym__documentation_block_comment]), (ACTIONS 6033,
       1, [anon_sym_RPAREN]), (ACTIONS 6509, 1, [anon_sym_COMMA]), (STATE 3218, 2, [sym_comment,
       sym_documentation_comment])]),
     (146066, 8, [(ACTIONS 3, 1, [anon_sym_SLASH_SLASH]), (ACTIONS 5, 1,
       [anon_sym_SLASH_STAR]), (ACTIONS 7, 1, [anon_sym_SLASH_SLASH_SLASH]), (ACTIONS 9, 1,
       [sym__block_comment]), (ACTIONS 11, 1, [sym__documentation_block_comment]), (ACTIONS 6639,
       1, [anon_sym_RPAREN]), (ACTIONS 6641, 1, [anon_sym_case]), (STATE 3219, 2, [sym_comment,
       sym_documentation_comment])]),
     (146092, 7, [(ACTIONS 3, 1, [anon_sym_SLASH_SLASH]), (ACTIONS 5, 1,
       [anon_sym_SLASH_STAR]), (ACTIONS 7, 1, [anon_sym_SLASH_SLASH_SLASH]), (ACTIONS 9, 1,
       [sym__block_comment]), (ACTIONS 11, 1, [sym__documentation_block_comment]), (ACTIONS 6643,
       2, [anon_sym_COMMA, anon_sym_RPAREN]), (STATE 3220, 2, [sym_comment,
       sym_documentation_comment])]),
     (146116, 8, [(ACTIONS 3, 1, [anon_sym_SLASH_SLASH]), (ACTIONS 5, 1,
       [anon_sym_SLASH_STAR]), (ACTIONS 7, 1, [anon_sym_SLASH_SLASH_SLASH]), (ACTIONS 9, 1,
       [sym__block_comment]), (ACTIONS 11, 1, [sym__documentation_block_comment]), (ACTIONS 6645,
       1, [anon_sym_get]), (STATE 3443, 1, [sym__get]), (STATE 3221, 2, [sym_comment,
       sym_documentation_comment])])]"

lemma small_run_932: "small_run 3214 145936 ts_small_parse_table_932 3222 146142"
  by (simp add: small_simps ts_small_parse_table_932_def)

definition ts_small_parse_table_933 :: "small_group list" where
  "ts_small_parse_table_933 = [
     (146142, 7, [(ACTIONS 3, 1, [anon_sym_SLASH_SLASH]), (ACTIONS 5, 1,
       [anon_sym_SLASH_STAR]), (ACTIONS 7, 1, [anon_sym_SLASH_SLASH_SLASH]), (ACTIONS 9, 1,
       [sym__block_comment]), (ACTIONS 11, 1, [sym__documentation_block_comment]), (ACTIONS 6647,
       2, [anon_sym_COMMA, anon_sym_SEMI]), (STATE 3222, 2, [sym_comment,
       sym_documentation_comment])]),
     (146166, 7, [(ACTIONS 3, 1, [anon_sym_SLASH_SLASH]), (ACTIONS 5, 1,
       [anon_sym_SLASH_STAR]), (ACTIONS 7, 1, [anon_sym_SLASH_SLASH_SLASH]), (ACTIONS 9, 1,
       [sym__block_comment]), (ACTIONS 11, 1, [sym__documentation_block_comment]), (ACTIONS 5814,
       2, [anon_sym_COMMA, anon_sym_SEMI]), (STATE 3223, 2, [sym_comment,
       sym_documentation_comment])]),
     (146190, 8, [(ACTIONS 3, 1, [anon_sym_SLASH_SLASH]), (ACTIONS 5, 1,
       [anon_sym_SLASH_STAR]), (ACTIONS 7, 1, [anon_sym_SLASH_SLASH_SLASH]), (ACTIONS 9, 1,
       [sym__block_comment]), (ACTIONS 11, 1, [sym__documentation_block_comment]), (ACTIONS 6491,
       1, [sym_identifier]), (STATE 2483, 1, [sym__type_name]), (STATE 3224, 2, [sym_comment,
       sym_documentation_comment])]),
     (146216, 8, [(ACTIONS 3, 1, [anon_sym_SLASH_SLASH]), (ACTIONS 5, 1,
       [anon_sym_SLASH_STAR]), (ACTIONS 7, 1, [anon_sym_SLASH_SLASH_SLASH]), (ACTIONS 9, 1,
       [sym__block_comment]), (ACTIONS 11, 1, [sym__documentation_block_comment]), (ACTIONS 3398,
       1, [anon_sym_LPAREN]), (STATE 2820, 1, [sym_arguments]), (STATE 3225, 2, [sym_comment,
       sym_documentation_comment])]),
     (146242, 8, [(ACTIONS 3, 1, [anon_sym_SLASH_SLASH]), (ACTIONS 5, 1,
       [anon_sym_SLASH_STAR]), (ACTIONS 7, 1, [anon_sym_SLASH_SLASH_SLASH]), (ACTIONS 9, 1,
       [sym__block_comment]), (ACTIONS 11, 1, [sym__documentation_block_comment]), (ACTIONS 5615,
       1, [anon_sym_LPAREN]), (STATE 2104, 1, [sym_arguments]), (STATE 3226, 2, [sym_comment,
       sym_documentation_comment])]),
     (146268, 8, [(ACTIONS 3, 1, [anon_sym_SLASH_SLASH]), (ACTIONS 5, 1,
       [anon_sym_SLASH_STAR]), (ACTIONS 7, 1, [anon_sym_SLASH_SLASH_SLASH]), (ACTIONS 9, 1,
       [sym__block_comment]), (ACTIONS 11, 1, [sym__documentation_block_comment]), (ACTIONS 6470,
       1, [anon_sym_class]), (ACTIONS 6649, 1, [sym_identifier]), (STATE 3227, 2, [sym_comment,
       sym_documentation_comment])]),
     (146294, 7, [(ACTIONS 3, 1, [anon_sym_SLASH_SLASH]), (ACTIONS 5, 1,
       [anon_sym_SLASH_STAR]), (ACTIONS 7, 1, [anon_sym_SLASH_SLASH_SLASH]), (ACTIONS 9, 1,
       [sym__block_comment]), (ACTIONS 11, 1, [sym__documentation_block_comment]), (ACTIONS 6651,
       2, [anon_sym_RBRACE, anon_sym_COMMA]), (STATE 3228, 2, [sym_comment,
       sym_documentation_comment])]),
     (146318, 8, [(ACTIONS 3, 1, [anon_sym_SLASH_SLASH]), (ACTIONS 5, 1,
       [anon_sym_SLASH_STAR]), (ACTIONS 7, 1, [anon_sym_SLASH_SLASH_SLASH]), (ACTIONS 9, 1,
       [sym__block_comment]), (ACTIONS 11, 1, [sym__documentation_block_comment]), (ACTIONS 6653,
       1, [anon_sym_operator]), (STATE 1537, 1, [sym__operator]), (STATE 3229, 2, [sym_comment,
       sym_documentation_comment])])]"

lemma small_run_933: "small_run 3222 146142 ts_small_parse_table_933 3230 146344"
  by (simp add: small_simps ts_small_parse_table_933_def)

definition ts_small_parse_table_934 :: "small_group list" where
  "ts_small_parse_table_934 = [
     (146344, 7, [(ACTIONS 3, 1, [anon_sym_SLASH_SLASH]), (ACTIONS 5, 1,
       [anon_sym_SLASH_STAR]), (ACTIONS 7, 1, [anon_sym_SLASH_SLASH_SLASH]), (ACTIONS 9, 1,
       [sym__block_comment]), (ACTIONS 11, 1, [sym__documentation_block_comment]), (ACTIONS 6655,
       2, [anon_sym_COLON, anon_sym_SEMI]), (STATE 3230, 2, [sym_comment,
       sym_documentation_comment])]),
     (146368, 8, [(ACTIONS 3, 1, [anon_sym_SLASH_SLASH]), (ACTIONS 5, 1,
       [anon_sym_SLASH_STAR]), (ACTIONS 7, 1, [anon_sym_SLASH_SLASH_SLASH]), (ACTIONS 9, 1,
       [sym__block_comment]), (ACTIONS 11, 1, [sym__documentation_block_comment]), (ACTIONS 2160,
       1, [anon_sym_LPAREN]), (STATE 1162, 1, [sym_arguments]), (STATE 3231, 2, [sym_comment,
       sym_documentation_comment])]),
     (146394, 8, [(ACTIONS 3, 1, [anon_sym_SLASH_SLASH]), (ACTIONS 5, 1,
       [anon_sym_SLASH_STAR]), (ACTIONS 7, 1, [anon_sym_SLASH_SLASH_SLASH]), (ACTIONS 9, 1,
       [sym__block_comment]), (ACTIONS 11, 1, [sym__documentation_block_comment]), (ACTIONS 5270,
       1, [anon_sym_native]), (ACTIONS 6657, 1, [anon_sym_EQ]), (STATE 3232, 2, [sym_comment,
       sym_documentation_comment])]),
     (146420, 8, [(ACTIONS 3, 1, [anon_sym_SLASH_SLASH]), (ACTIONS 5, 1,
       [anon_sym_SLASH_STAR]), (ACTIONS 7, 1, [anon_sym_SLASH_SLASH_SLASH]), (ACTIONS 9, 1,
       [sym__block_comment]), (ACTIONS 11, 1, [sym__documentation_block_comment]), (ACTIONS 5805,
       1, [sym_identifier]), (STATE 3223, 1, [sym_initialized_identifier]), (STATE 3233, 2,
       [sym_comment, sym_documentation_comment])]),
     (146446, 7, [(ACTIONS 3, 1, [anon_sym_SLASH_SLASH]), (ACTIONS 5, 1,
       [anon_sym_SLASH_STAR]), (ACTIONS 7, 1, [anon_sym_SLASH_SLASH_SLASH]), (ACTIONS 9, 1,
       [sym__block_comment]), (ACTIONS 11, 1, [sym__documentation_block_comment]), (ACTIONS 5781,
       2, [anon_sym_COMMA, anon_sym_RPAREN]), (STATE 3234, 2, [sym_comment,
       sym_documentation_comment])]),
     (146470, 8, [(ACTIONS 3, 1, [anon_sym_SLASH_SLASH]), (ACTIONS 5, 1,
       [anon_sym_SLASH_STAR]), (ACTIONS 7, 1, [anon_sym_SLASH_SLASH_SLASH]), (ACTIONS 9, 1,
       [sym__block_comment]), (ACTIONS 11, 1, [sym__documentation_block_comment]), (ACTIONS 3398,
       1, [anon_sym_LPAREN]), (STATE 3418, 1, [sym_arguments]), (STATE 3235, 2, [sym_comment,
       sym_documentation_comment])]),
     (146496, 8, [(ACTIONS 3, 1, [anon_sym_SLASH_SLASH]), (ACTIONS 5, 1,
       [anon_sym_SLASH_STAR]), (ACTIONS 7, 1, [anon_sym_SLASH_SLASH_SLASH]), (ACTIONS 9, 1,
       [sym__block_comment]), (ACTIONS 11, 1, [sym__documentation_block_comment]), (ACTIONS 2160,
       1, [anon_sym_LPAREN]), (STATE 2360, 1, [sym_arguments]), (STATE 3236, 2, [sym_comment,
       sym_documentation_comment])]),
     (146522, 8, [(ACTIONS 3, 1, [anon_sym_SLASH_SLASH]), (ACTIONS 5, 1,
       [anon_sym_SLASH_STAR]), (ACTIONS 7, 1, [anon_sym_SLASH_SLASH_SLASH]), (ACTIONS 9, 1,
       [sym__block_comment]), (ACTIONS 11, 1, [sym__documentation_block_comment]), (ACTIONS 474,
       1, [anon_sym_SEMI]), (STATE 1947, 1, [sym__semicolon]), (STATE 3237, 2, [sym_comment,
       sym_documentation_comment])])]"

lemma small_run_934: "small_run 3230 146344 ts_small_parse_table_934 3238 146548"
  by (simp add: small_simps ts_small_parse_table_934_def)

definition ts_small_parse_table_935 :: "small_group list" where
  "ts_small_parse_table_935 = [
     (146548, 8, [(ACTIONS 3, 1, [anon_sym_SLASH_SLASH]), (ACTIONS 5, 1,
       [anon_sym_SLASH_STAR]), (ACTIONS 7, 1, [anon_sym_SLASH_SLASH_SLASH]), (ACTIONS 9, 1,
       [sym__block_comment]), (ACTIONS 11, 1, [sym__documentation_block_comment]), (ACTIONS 2160,
       1, [anon_sym_LPAREN]), (STATE 1097, 1, [sym_arguments]), (STATE 3238, 2, [sym_comment,
       sym_documentation_comment])]),
     (146574, 8, [(ACTIONS 3, 1, [anon_sym_SLASH_SLASH]), (ACTIONS 5, 1,
       [anon_sym_SLASH_STAR]), (ACTIONS 7, 1, [anon_sym_SLASH_SLASH_SLASH]), (ACTIONS 9, 1,
       [sym__block_comment]), (ACTIONS 11, 1, [sym__documentation_block_comment]), (ACTIONS 5331,
       1, [anon_sym_native]), (STATE 3520, 1, [sym__native]), (STATE 3239, 2, [sym_comment,
       sym_documentation_comment])]),
     (146600, 8, [(ACTIONS 3, 1, [anon_sym_SLASH_SLASH]), (ACTIONS 5, 1,
       [anon_sym_SLASH_STAR]), (ACTIONS 7, 1, [anon_sym_SLASH_SLASH_SLASH]), (ACTIONS 9, 1,
       [sym__block_comment]), (ACTIONS 11, 1, [sym__documentation_block_comment]), (ACTIONS 5193,
       1, [anon_sym_SEMI]), (STATE 1724, 1, [sym__semicolon]), (STATE 3240, 2, [sym_comment,
       sym_documentation_comment])]),
     (146626, 8, [(ACTIONS 3, 1, [anon_sym_SLASH_SLASH]), (ACTIONS 5, 1,
       [anon_sym_SLASH_STAR]), (ACTIONS 7, 1, [anon_sym_SLASH_SLASH_SLASH]), (ACTIONS 9, 1,
       [sym__block_comment]), (ACTIONS 11, 1, [sym__documentation_block_comment]), (ACTIONS 5193,
       1, [anon_sym_SEMI]), (STATE 1579, 1, [sym__semicolon]), (STATE 3241, 2, [sym_comment,
       sym_documentation_comment])]),
     (146652, 8, [(ACTIONS 3, 1, [anon_sym_SLASH_SLASH]), (ACTIONS 5, 1,
       [anon_sym_SLASH_STAR]), (ACTIONS 7, 1, [anon_sym_SLASH_SLASH_SLASH]), (ACTIONS 9, 1,
       [sym__block_comment]), (ACTIONS 11, 1, [sym__documentation_block_comment]), (ACTIONS 5193,
       1, [anon_sym_SEMI]), (STATE 1674, 1, [sym__semicolon]), (STATE 3242, 2, [sym_comment,
       sym_documentation_comment])]),
     (146678, 8, [(ACTIONS 3, 1, [anon_sym_SLASH_SLASH]), (ACTIONS 5, 1,
       [anon_sym_SLASH_STAR]), (ACTIONS 7, 1, [anon_sym_SLASH_SLASH_SLASH]), (ACTIONS 9, 1,
       [sym__block_comment]), (ACTIONS 11, 1, [sym__documentation_block_comment]), (ACTIONS 4971,
       1, [anon_sym_LBRACE]), (STATE 1775, 1, [sym_enum_body]), (STATE 3243, 2, [sym_comment,
       sym_documentation_comment])]),
     (146704, 8, [(ACTIONS 3, 1, [anon_sym_SLASH_SLASH]), (ACTIONS 5, 1,
       [anon_sym_SLASH_STAR]), (ACTIONS 7, 1, [anon_sym_SLASH_SLASH_SLASH]), (ACTIONS 9, 1,
       [sym__block_comment]), (ACTIONS 11, 1, [sym__documentation_block_comment]), (ACTIONS 2160,
       1, [anon_sym_LPAREN]), (STATE 1170, 1, [sym_arguments]), (STATE 3244, 2, [sym_comment,
       sym_documentation_comment])]),
     (146730, 8, [(ACTIONS 3, 1, [anon_sym_SLASH_SLASH]), (ACTIONS 5, 1,
       [anon_sym_SLASH_STAR]), (ACTIONS 7, 1, [anon_sym_SLASH_SLASH_SLASH]), (ACTIONS 9, 1,
       [sym__block_comment]), (ACTIONS 11, 1, [sym__documentation_block_comment]), (ACTIONS 4578,
       1, [anon_sym_LBRACE]), (STATE 1755, 1, [sym_class_body]), (STATE 3245, 2, [sym_comment,
       sym_documentation_comment])])]"

lemma small_run_935: "small_run 3238 146548 ts_small_parse_table_935 3246 146756"
  by (simp add: small_simps ts_small_parse_table_935_def)

definition ts_small_parse_table_936 :: "small_group list" where
  "ts_small_parse_table_936 = [
     (146756, 8, [(ACTIONS 3, 1, [anon_sym_SLASH_SLASH]), (ACTIONS 5, 1,
       [anon_sym_SLASH_STAR]), (ACTIONS 7, 1, [anon_sym_SLASH_SLASH_SLASH]), (ACTIONS 9, 1,
       [sym__block_comment]), (ACTIONS 11, 1, [sym__documentation_block_comment]), (ACTIONS 2300,
       1, [anon_sym_LBRACK]), (STATE 666, 1, [sym_index_selector]), (STATE 3246, 2, [sym_comment,
       sym_documentation_comment])]),
     (146782, 7, [(ACTIONS 3, 1, [anon_sym_SLASH_SLASH]), (ACTIONS 5, 1,
       [anon_sym_SLASH_STAR]), (ACTIONS 7, 1, [anon_sym_SLASH_SLASH_SLASH]), (ACTIONS 9, 1,
       [sym__block_comment]), (ACTIONS 11, 1, [sym__documentation_block_comment]), (ACTIONS 6659,
       2, [anon_sym_COMMA, anon_sym_RPAREN]), (STATE 3247, 2, [sym_comment,
       sym_documentation_comment])]),
     (146806, 7, [(ACTIONS 3, 1, [anon_sym_SLASH_SLASH]), (ACTIONS 5, 1,
       [anon_sym_SLASH_STAR]), (ACTIONS 7, 1, [anon_sym_SLASH_SLASH_SLASH]), (ACTIONS 9, 1,
       [sym__block_comment]), (ACTIONS 11, 1, [sym__documentation_block_comment]), (ACTIONS 6661,
       2, [anon_sym_LBRACE, anon_sym_implements]), (STATE 3248, 2, [sym_comment,
       sym_documentation_comment])]),
     (146830, 8, [(ACTIONS 3, 1, [anon_sym_SLASH_SLASH]), (ACTIONS 5, 1,
       [anon_sym_SLASH_STAR]), (ACTIONS 7, 1, [anon_sym_SLASH_SLASH_SLASH]), (ACTIONS 9, 1,
       [sym__block_comment]), (ACTIONS 11, 1, [sym__documentation_block_comment]), (ACTIONS 4351,
       1, [sym_increment_operator]), (STATE 1094, 1, [sym_postfix_operator]), (STATE 3249, 2,
       [sym_comment, sym_documentation_comment])]),
     (146856, 8, [(ACTIONS 3, 1, [anon_sym_SLASH_SLASH]), (ACTIONS 5, 1,
       [anon_sym_SLASH_STAR]), (ACTIONS 7, 1, [anon_sym_SLASH_SLASH_SLASH]), (ACTIONS 9, 1,
       [sym__block_comment]), (ACTIONS 11, 1, [sym__documentation_block_comment]), (ACTIONS 6448,
       1, [anon_sym_class]), (ACTIONS 6663, 1, [sym_identifier]), (STATE 3250, 2, [sym_comment,
       sym_documentation_comment])]),
     (146882, 8, [(ACTIONS 3, 1, [anon_sym_SLASH_SLASH]), (ACTIONS 5, 1,
       [anon_sym_SLASH_STAR]), (ACTIONS 7, 1, [anon_sym_SLASH_SLASH_SLASH]), (ACTIONS 9, 1,
       [sym__block_comment]), (ACTIONS 11, 1, [sym__documentation_block_comment]), (ACTIONS 6438,
       1, [anon_sym_LBRACE]), (STATE 1729, 1, [sym_extension_body]), (STATE 3251, 2,
       [sym_comment, sym_documentation_comment])]),
     (146908, 8, [(ACTIONS 3, 1, [anon_sym_SLASH_SLASH]), (ACTIONS 5, 1,
       [anon_sym_SLASH_STAR]), (ACTIONS 7, 1, [anon_sym_SLASH_SLASH_SLASH]), (ACTIONS 9, 1,
       [sym__block_comment]), (ACTIONS 11, 1, [sym__documentation_block_comment]), (ACTIONS 6665,
       1, [anon_sym_DOT]), (ACTIONS 6667, 1, [anon_sym_SEMI]), (STATE 3252, 2, [sym_comment,
       sym_documentation_comment])]),
     (146934, 8, [(ACTIONS 3, 1, [anon_sym_SLASH_SLASH]), (ACTIONS 5, 1,
       [anon_sym_SLASH_STAR]), (ACTIONS 7, 1, [anon_sym_SLASH_SLASH_SLASH]), (ACTIONS 9, 1,
       [sym__block_comment]), (ACTIONS 11, 1, [sym__documentation_block_comment]), (ACTIONS 4578,
       1, [anon_sym_LBRACE]), (STATE 1787, 1, [sym_class_body]), (STATE 3253, 2, [sym_comment,
       sym_documentation_comment])])]"

lemma small_run_936: "small_run 3246 146756 ts_small_parse_table_936 3254 146960"
  by (simp add: small_simps ts_small_parse_table_936_def)

definition ts_small_parse_table_937 :: "small_group list" where
  "ts_small_parse_table_937 = [
     (146960, 7, [(ACTIONS 3, 1, [anon_sym_SLASH_SLASH]), (ACTIONS 5, 1,
       [anon_sym_SLASH_STAR]), (ACTIONS 7, 1, [anon_sym_SLASH_SLASH_SLASH]), (ACTIONS 9, 1,
       [sym__block_comment]), (ACTIONS 11, 1, [sym__documentation_block_comment]), (ACTIONS 5869,
       2, [anon_sym_RBRACE, anon_sym_COMMA]), (STATE 3254, 2, [sym_comment,
       sym_documentation_comment])]),
     (146984, 8, [(ACTIONS 3, 1, [anon_sym_SLASH_SLASH]), (ACTIONS 5, 1,
       [anon_sym_SLASH_STAR]), (ACTIONS 7, 1, [anon_sym_SLASH_SLASH_SLASH]), (ACTIONS 9, 1,
       [sym__block_comment]), (ACTIONS 11, 1, [sym__documentation_block_comment]), (ACTIONS 4971,
       1, [anon_sym_LBRACE]), (STATE 1788, 1, [sym_enum_body]), (STATE 3255, 2, [sym_comment,
       sym_documentation_comment])]),
     (147010, 7, [(ACTIONS 3, 1, [anon_sym_SLASH_SLASH]), (ACTIONS 5, 1,
       [anon_sym_SLASH_STAR]), (ACTIONS 7, 1, [anon_sym_SLASH_SLASH_SLASH]), (ACTIONS 9, 1,
       [sym__block_comment]), (ACTIONS 11, 1, [sym__documentation_block_comment]), (ACTIONS 6669,
       2, [anon_sym_COMMA, anon_sym_RPAREN]), (STATE 3256, 2, [sym_comment,
       sym_documentation_comment])]),
     (147034, 7, [(ACTIONS 3, 1, [anon_sym_SLASH_SLASH]), (ACTIONS 5, 1,
       [anon_sym_SLASH_STAR]), (ACTIONS 7, 1, [anon_sym_SLASH_SLASH_SLASH]), (ACTIONS 9, 1,
       [sym__block_comment]), (ACTIONS 11, 1, [sym__documentation_block_comment]), (ACTIONS 6671,
       2, [anon_sym_COMMA, anon_sym_RPAREN]), (STATE 3257, 2, [sym_comment,
       sym_documentation_comment])]),
     (147058, 8, [(ACTIONS 3, 1, [anon_sym_SLASH_SLASH]), (ACTIONS 5, 1,
       [anon_sym_SLASH_STAR]), (ACTIONS 7, 1, [anon_sym_SLASH_SLASH_SLASH]), (ACTIONS 9, 1,
       [sym__block_comment]), (ACTIONS 11, 1, [sym__documentation_block_comment]), (ACTIONS 6098,
       1, [anon_sym_RPAREN]), (ACTIONS 6527, 1, [anon_sym_COMMA]), (STATE 3258, 2, [sym_comment,
       sym_documentation_comment])]),
     (147084, 8, [(ACTIONS 3, 1, [anon_sym_SLASH_SLASH]), (ACTIONS 5, 1,
       [anon_sym_SLASH_STAR]), (ACTIONS 7, 1, [anon_sym_SLASH_SLASH_SLASH]), (ACTIONS 9, 1,
       [sym__block_comment]), (ACTIONS 11, 1, [sym__documentation_block_comment]), (ACTIONS 6438,
       1, [anon_sym_LBRACE]), (STATE 1751, 1, [sym_extension_body]), (STATE 3259, 2,
       [sym_comment, sym_documentation_comment])]),
     (147110, 8, [(ACTIONS 3, 1, [anon_sym_SLASH_SLASH]), (ACTIONS 5, 1,
       [anon_sym_SLASH_STAR]), (ACTIONS 7, 1, [anon_sym_SLASH_SLASH_SLASH]), (ACTIONS 9, 1,
       [sym__block_comment]), (ACTIONS 11, 1, [sym__documentation_block_comment]), (ACTIONS 474,
       1, [anon_sym_SEMI]), (STATE 190, 1, [sym__semicolon]), (STATE 3260, 2, [sym_comment,
       sym_documentation_comment])]),
     (147136, 8, [(ACTIONS 3, 1, [anon_sym_SLASH_SLASH]), (ACTIONS 5, 1,
       [anon_sym_SLASH_STAR]), (ACTIONS 7, 1, [anon_sym_SLASH_SLASH_SLASH]), (ACTIONS 9, 1,
       [sym__block_comment]), (ACTIONS 11, 1, [sym__documentation_block_comment]), (ACTIONS 5831,
       1, [sym_identifier]), (STATE 3031, 1, [sym_static_final_declaration]), (STATE 3261, 2,
       [sym_comment, sym_documentation_comment])])]"

lemma small_run_937: "small_run 3254 146960 ts_small_parse_table_937 3262 147162"
  by (simp add: small_simps ts_small_parse_table_937_def)

definition ts_small_parse_table_938 :: "small_group list" where
  "ts_small_parse_table_938 = [
     (147162, 8, [(ACTIONS 3, 1, [anon_sym_SLASH_SLASH]), (ACTIONS 5, 1,
       [anon_sym_SLASH_STAR]), (ACTIONS 7, 1, [anon_sym_SLASH_SLASH_SLASH]), (ACTIONS 9, 1,
       [sym__block_comment]), (ACTIONS 11, 1, [sym__documentation_block_comment]), (ACTIONS 6673,
       1, [anon_sym_LBRACE]), (ACTIONS 6675, 1, [anon_sym_LBRACK]), (STATE 3262, 2, [sym_comment,
       sym_documentation_comment])]),
     (147188, 7, [(ACTIONS 3, 1, [anon_sym_SLASH_SLASH]), (ACTIONS 5, 1,
       [anon_sym_SLASH_STAR]), (ACTIONS 7, 1, [anon_sym_SLASH_SLASH_SLASH]), (ACTIONS 9, 1,
       [sym__block_comment]), (ACTIONS 11, 1, [sym__documentation_block_comment]), (ACTIONS 6677,
       2, [anon_sym_COMMA, anon_sym_GT]), (STATE 3263, 2, [sym_comment,
       sym_documentation_comment])]),
     (147212, 8, [(ACTIONS 3, 1, [anon_sym_SLASH_SLASH]), (ACTIONS 5, 1,
       [anon_sym_SLASH_STAR]), (ACTIONS 7, 1, [anon_sym_SLASH_SLASH_SLASH]), (ACTIONS 9, 1,
       [sym__block_comment]), (ACTIONS 11, 1, [sym__documentation_block_comment]), (ACTIONS 474,
       1, [anon_sym_SEMI]), (STATE 1732, 1, [sym__semicolon]), (STATE 3264, 2, [sym_comment,
       sym_documentation_comment])]),
     (147238, 8, [(ACTIONS 3, 1, [anon_sym_SLASH_SLASH]), (ACTIONS 5, 1,
       [anon_sym_SLASH_STAR]), (ACTIONS 7, 1, [anon_sym_SLASH_SLASH_SLASH]), (ACTIONS 9, 1,
       [sym__block_comment]), (ACTIONS 11, 1, [sym__documentation_block_comment]), (ACTIONS 474,
       1, [anon_sym_SEMI]), (STATE 1959, 1, [sym__semicolon]), (STATE 3265, 2, [sym_comment,
       sym_documentation_comment])]),
     (147264, 7, [(ACTIONS 3, 1, [anon_sym_SLASH_SLASH]), (ACTIONS 5, 1,
       [anon_sym_SLASH_STAR]), (ACTIONS 7, 1, [anon_sym_SLASH_SLASH_SLASH]), (ACTIONS 9, 1,
       [sym__block_comment]), (ACTIONS 11, 1, [sym__documentation_block_comment]), (ACTIONS 6679,
       2, [anon_sym_RBRACE, anon_sym_COMMA]), (STATE 3266, 2, [sym_comment,
       sym_documentation_comment])]),
     (147288, 7, [(ACTIONS 3, 1, [anon_sym_SLASH_SLASH]), (ACTIONS 5, 1,
       [anon_sym_SLASH_STAR]), (ACTIONS 7, 1, [anon_sym_SLASH_SLASH_SLASH]), (ACTIONS 9, 1,
       [sym__block_comment]), (ACTIONS 11, 1, [sym__documentation_block_comment]), (ACTIONS 5935,
       2, [anon_sym_COMMA, anon_sym_GT]), (STATE 3267, 2, [sym_comment,
       sym_documentation_comment])]),
     (147312, 7, [(ACTIONS 3, 1, [anon_sym_SLASH_SLASH]), (ACTIONS 5, 1,
       [anon_sym_SLASH_STAR]), (ACTIONS 7, 1, [anon_sym_SLASH_SLASH_SLASH]), (ACTIONS 9, 1,
       [sym__block_comment]), (ACTIONS 11, 1, [sym__documentation_block_comment]), (ACTIONS 5910,
       2, [anon_sym_COMMA, anon_sym_RBRACK]), (STATE 3268, 2, [sym_comment,
       sym_documentation_comment])]),
     (147336, 7, [(ACTIONS 3, 1, [anon_sym_SLASH_SLASH]), (ACTIONS 5, 1,
       [anon_sym_SLASH_STAR]), (ACTIONS 7, 1, [anon_sym_SLASH_SLASH_SLASH]), (ACTIONS 9, 1,
       [sym__block_comment]), (ACTIONS 11, 1, [sym__documentation_block_comment]), (ACTIONS 5921,
       2, [anon_sym_RBRACE, anon_sym_COMMA]), (STATE 3269, 2, [sym_comment,
       sym_documentation_comment])])]"

lemma small_run_938: "small_run 3262 147162 ts_small_parse_table_938 3270 147360"
  by (simp add: small_simps ts_small_parse_table_938_def)

definition ts_small_parse_table_939 :: "small_group list" where
  "ts_small_parse_table_939 = [
     (147360, 7, [(ACTIONS 3, 1, [anon_sym_SLASH_SLASH]), (ACTIONS 5, 1,
       [anon_sym_SLASH_STAR]), (ACTIONS 7, 1, [anon_sym_SLASH_SLASH_SLASH]), (ACTIONS 9, 1,
       [sym__block_comment]), (ACTIONS 11, 1, [sym__documentation_block_comment]), (ACTIONS 5666,
       2, [anon_sym_COMMA, anon_sym_GT]), (STATE 3270, 2, [sym_comment,
       sym_documentation_comment])]),
     (147384, 8, [(ACTIONS 3, 1, [anon_sym_SLASH_SLASH]), (ACTIONS 5, 1,
       [anon_sym_SLASH_STAR]), (ACTIONS 7, 1, [anon_sym_SLASH_SLASH_SLASH]), (ACTIONS 9, 1,
       [sym__block_comment]), (ACTIONS 11, 1, [sym__documentation_block_comment]), (ACTIONS 6681,
       1, [anon_sym_COMMA]), (ACTIONS 6683, 1, [anon_sym_RPAREN]), (STATE 3271, 2, [sym_comment,
       sym_documentation_comment])]),
     (147410, 7, [(ACTIONS 3, 1, [anon_sym_SLASH_SLASH]), (ACTIONS 5, 1,
       [anon_sym_SLASH_STAR]), (ACTIONS 7, 1, [anon_sym_SLASH_SLASH_SLASH]), (ACTIONS 9, 1,
       [sym__block_comment]), (ACTIONS 11, 1, [sym__documentation_block_comment]), (ACTIONS 5668,
       2, [anon_sym_COMMA, anon_sym_GT]), (STATE 3272, 2, [sym_comment,
       sym_documentation_comment])]),
     (147434, 7, [(ACTIONS 3, 1, [anon_sym_SLASH_SLASH]), (ACTIONS 5, 1,
       [anon_sym_SLASH_STAR]), (ACTIONS 7, 1, [anon_sym_SLASH_SLASH_SLASH]), (ACTIONS 9, 1,
       [sym__block_comment]), (ACTIONS 11, 1, [sym__documentation_block_comment]), (ACTIONS 6685,
       1, [sym_identifier]), (STATE 3273, 2, [sym_comment, sym_documentation_comment])]),
     (147457, 7, [(ACTIONS 3, 1, [anon_sym_SLASH_SLASH]), (ACTIONS 5, 1,
       [anon_sym_SLASH_STAR]), (ACTIONS 7, 1, [anon_sym_SLASH_SLASH_SLASH]), (ACTIONS 9, 1,
       [sym__block_comment]), (ACTIONS 11, 1, [sym__documentation_block_comment]), (ACTIONS 6687,
       1, [sym_identifier]), (STATE 3274, 2, [sym_comment, sym_documentation_comment])]),
     (147480, 7, [(ACTIONS 3, 1, [anon_sym_SLASH_SLASH]), (ACTIONS 5, 1,
       [anon_sym_SLASH_STAR]), (ACTIONS 7, 1, [anon_sym_SLASH_SLASH_SLASH]), (ACTIONS 9, 1,
       [sym__block_comment]), (ACTIONS 11, 1, [sym__documentation_block_comment]), (ACTIONS 6689,
       1, [sym_identifier]), (STATE 3275, 2, [sym_comment, sym_documentation_comment])]),
     (147503, 7, [(ACTIONS 3, 1, [anon_sym_SLASH_SLASH]), (ACTIONS 5, 1,
       [anon_sym_SLASH_STAR]), (ACTIONS 7, 1, [anon_sym_SLASH_SLASH_SLASH]), (ACTIONS 9, 1,
       [sym__block_comment]), (ACTIONS 11, 1, [sym__documentation_block_comment]), (ACTIONS 6691,
       1, [anon_sym_DOT]), (STATE 3276, 2, [sym_comment, sym_documentation_comment])]),
     (147526, 7, [(ACTIONS 3, 1, [anon_sym_SLASH_SLASH]), (ACTIONS 5, 1,
       [anon_sym_SLASH_STAR]), (ACTIONS 7, 1, [anon_sym_SLASH_SLASH_SLASH]), (ACTIONS 9, 1,
       [sym__block_comment]), (ACTIONS 11, 1, [sym__documentation_block_comment]), (ACTIONS 6683,
       1, [anon_sym_RPAREN]), (STATE 3277, 2, [sym_comment, sym_documentation_comment])]),
     (147549, 7, [(ACTIONS 3, 1, [anon_sym_SLASH_SLASH]), (ACTIONS 5, 1,
       [anon_sym_SLASH_STAR]), (ACTIONS 7, 1, [anon_sym_SLASH_SLASH_SLASH]), (ACTIONS 9, 1,
       [sym__block_comment]), (ACTIONS 11, 1, [sym__documentation_block_comment]), (ACTIONS 6594,
       1, [anon_sym_RPAREN]), (STATE 3278, 2, [sym_comment, sym_documentation_comment])])]"

lemma small_run_939: "small_run 3270 147360 ts_small_parse_table_939 3279 147572"
  by (simp add: small_simps ts_small_parse_table_939_def)

definition ts_small_parse_table_940 :: "small_group list" where
  "ts_small_parse_table_940 = [
     (147572, 7, [(ACTIONS 3, 1, [anon_sym_SLASH_SLASH]), (ACTIONS 5, 1,
       [anon_sym_SLASH_STAR]), (ACTIONS 7, 1, [anon_sym_SLASH_SLASH_SLASH]), (ACTIONS 9, 1,
       [sym__block_comment]), (ACTIONS 11, 1, [sym__documentation_block_comment]), (ACTIONS 6693,
       1, [sym_identifier]), (STATE 3279, 2, [sym_comment, sym_documentation_comment])]),
     (147595, 7, [(ACTIONS 3, 1, [anon_sym_SLASH_SLASH]), (ACTIONS 5, 1,
       [anon_sym_SLASH_STAR]), (ACTIONS 7, 1, [anon_sym_SLASH_SLASH_SLASH]), (ACTIONS 9, 1,
       [sym__block_comment]), (ACTIONS 11, 1, [sym__documentation_block_comment]), (ACTIONS 6695,
       1, [anon_sym_COLON]), (STATE 3280, 2, [sym_comment, sym_documentation_comment])]),
     (147618, 7, [(ACTIONS 3, 1, [anon_sym_SLASH_SLASH]), (ACTIONS 5, 1,
       [anon_sym_SLASH_STAR]), (ACTIONS 7, 1, [anon_sym_SLASH_SLASH_SLASH]), (ACTIONS 9, 1,
       [sym__block_comment]), (ACTIONS 11, 1, [sym__documentation_block_comment]), (ACTIONS 6697,
       1, [anon_sym_RBRACE]), (STATE 3281, 2, [sym_comment, sym_documentation_comment])]),
     (147641, 7, [(ACTIONS 3, 1, [anon_sym_SLASH_SLASH]), (ACTIONS 5, 1,
       [anon_sym_SLASH_STAR]), (ACTIONS 7, 1, [anon_sym_SLASH_SLASH_SLASH]), (ACTIONS 9, 1,
       [sym__block_comment]), (ACTIONS 11, 1, [sym__documentation_block_comment]), (ACTIONS 5333,
       1, [anon_sym_EQ]), (STATE 3282, 2, [sym_comment, sym_documentation_comment])]),
     (147664, 7, [(ACTIONS 3, 1, [anon_sym_SLASH_SLASH]), (ACTIONS 5, 1,
       [anon_sym_SLASH_STAR]), (ACTIONS 7, 1, [anon_sym_SLASH_SLASH_SLASH]), (ACTIONS 9, 1,
       [sym__block_comment]), (ACTIONS 11, 1, [sym__documentation_block_comment]), (ACTIONS 6699,
       1, [anon_sym_DOT]), (STATE 3283, 2, [sym_comment, sym_documentation_comment])]),
     (147687, 7, [(ACTIONS 3, 1, [anon_sym_SLASH_SLASH]), (ACTIONS 5, 1,
       [anon_sym_SLASH_STAR]), (ACTIONS 7, 1, [anon_sym_SLASH_SLASH_SLASH]), (ACTIONS 9, 1,
       [sym__block_comment]), (ACTIONS 11, 1, [sym__documentation_block_comment]), (ACTIONS 6701,
       1, [sym_identifier]), (STATE 3284, 2, [sym_comment, sym_documentation_comment])]),
     (147710, 7, [(ACTIONS 3, 1, [anon_sym_SLASH_SLASH]), (ACTIONS 5, 1,
       [anon_sym_SLASH_STAR]), (ACTIONS 7, 1, [anon_sym_SLASH_SLASH_SLASH]), (ACTIONS 9, 1,
       [sym__block_comment]), (ACTIONS 11, 1, [sym__documentation_block_comment]), (ACTIONS 6703,
       1, [anon_sym_RPAREN]), (STATE 3285, 2, [sym_comment, sym_documentation_comment])]),
     (147733, 7, [(ACTIONS 3, 1, [anon_sym_SLASH_SLASH]), (ACTIONS 5, 1,
       [anon_sym_SLASH_STAR]), (ACTIONS 7, 1, [anon_sym_SLASH_SLASH_SLASH]), (ACTIONS 9, 1,
       [sym__block_comment]), (ACTIONS 11, 1, [sym__documentation_block_comment]), (ACTIONS 6705,
       1, [anon_sym_RPAREN]), (STATE 3286, 2, [sym_comment, sym_documentation_comment])]),
     (147756, 7, [(ACTIONS 3, 1, [anon_sym_SLASH_SLASH]), (ACTIONS 5, 1,
       [anon_sym_SLASH_STAR]), (ACTIONS 7, 1, [anon_sym_SLASH_SLASH_SLASH]), (ACTIONS 9, 1,
       [sym__block_comment]), (ACTIONS 11, 1, [sym__documentation_block_comment]), (ACTIONS 6707,
       1, [anon_sym_EQ]), (STATE 3287, 2, [sym_comment, sym_documentation_comment])])]"

lemma small_run_940: "small_run 3279 147572 ts_small_parse_table_940 3288 147779"
  by (simp add: small_simps ts_small_parse_table_940_def)

definition ts_small_parse_table_941 :: "small_group list" where
  "ts_small_parse_table_941 = [
     (147779, 7, [(ACTIONS 3, 1, [anon_sym_SLASH_SLASH]), (ACTIONS 5, 1,
       [anon_sym_SLASH_STAR]), (ACTIONS 7, 1, [anon_sym_SLASH_SLASH_SLASH]), (ACTIONS 9, 1,
       [sym__block_comment]), (ACTIONS 11, 1, [sym__documentation_block_comment]), (ACTIONS 6709,
       1, [anon_sym_DOT]), (STATE 3288, 2, [sym_comment, sym_documentation_comment])]),
     (147802, 7, [(ACTIONS 3, 1, [anon_sym_SLASH_SLASH]), (ACTIONS 5, 1,
       [anon_sym_SLASH_STAR]), (ACTIONS 7, 1, [anon_sym_SLASH_SLASH_SLASH]), (ACTIONS 9, 1,
       [sym__block_comment]), (ACTIONS 11, 1, [sym__documentation_block_comment]), (ACTIONS 6711,
       1, [anon_sym_RPAREN]), (STATE 3289, 2, [sym_comment, sym_documentation_comment])]),
     (147825, 7, [(ACTIONS 3, 1, [anon_sym_SLASH_SLASH]), (ACTIONS 5, 1,
       [anon_sym_SLASH_STAR]), (ACTIONS 7, 1, [anon_sym_SLASH_SLASH_SLASH]), (ACTIONS 9, 1,
       [sym__block_comment]), (ACTIONS 11, 1, [sym__documentation_block_comment]), (ACTIONS 6713,
       1, [anon_sym_RPAREN]), (STATE 3290, 2, [sym_comment, sym_documentation_comment])]),
     (147848, 7, [(ACTIONS 3, 1, [anon_sym_SLASH_SLASH]), (ACTIONS 5, 1,
       [anon_sym_SLASH_STAR]), (ACTIONS 7, 1, [anon_sym_SLASH_SLASH_SLASH]), (ACTIONS 9, 1,
       [sym__block_comment]), (ACTIONS 11, 1, [sym__documentation_block_comment]), (ACTIONS 6715,
       1, [anon_sym_RPAREN]), (STATE 3291, 2, [sym_comment, sym_documentation_comment])]),
     (147871, 7, [(ACTIONS 3, 1, [anon_sym_SLASH_SLASH]), (ACTIONS 5, 1,
       [anon_sym_SLASH_STAR]), (ACTIONS 7, 1, [anon_sym_SLASH_SLASH_SLASH]), (ACTIONS 9, 1,
       [sym__block_comment]), (ACTIONS 11, 1, [sym__documentation_block_comment]), (ACTIONS 5863,
       1, [anon_sym_RPAREN]), (STATE 3292, 2, [sym_comment, sym_documentation_comment])]),
     (147894, 7, [(ACTIONS 3, 1, [anon_sym_SLASH_SLASH]), (ACTIONS 5, 1,
       [anon_sym_SLASH_STAR]), (ACTIONS 7, 1, [anon_sym_SLASH_SLASH_SLASH]), (ACTIONS 9, 1,
       [sym__block_comment]), (ACTIONS 11, 1, [sym__documentation_block_comment]), (ACTIONS 4186,
       1, [anon_sym_RPAREN]), (STATE 3293, 2, [sym_comment, sym_documentation_comment])]),
     (147917, 7, [(ACTIONS 3, 1, [anon_sym_SLASH_SLASH]), (ACTIONS 5, 1,
       [anon_sym_SLASH_STAR]), (ACTIONS 7, 1, [anon_sym_SLASH_SLASH_SLASH]), (ACTIONS 9, 1,
       [sym__block_comment]), (ACTIONS 11, 1, [sym__documentation_block_comment]), (ACTIONS 6717,
       1, [anon_sym_on]), (STATE 3294, 2, [sym_comment, sym_documentation_comment])]),
     (147940, 7, [(ACTIONS 3, 1, [anon_sym_SLASH_SLASH]), (ACTIONS 5, 1,
       [anon_sym_SLASH_STAR]), (ACTIONS 7, 1, [anon_sym_SLASH_SLASH_SLASH]), (ACTIONS 9, 1,
       [sym__block_comment]), (ACTIONS 11, 1, [sym__documentation_block_comment]), (ACTIONS 6719,
       1, [anon_sym_RPAREN]), (STATE 3295, 2, [sym_comment, sym_documentation_comment])]),
     (147963, 7, [(ACTIONS 3, 1, [anon_sym_SLASH_SLASH]), (ACTIONS 5, 1,
       [anon_sym_SLASH_STAR]), (ACTIONS 7, 1, [anon_sym_SLASH_SLASH_SLASH]), (ACTIONS 9, 1,
       [sym__block_comment]), (ACTIONS 11, 1, [sym__documentation_block_comment]), (ACTIONS 6721,
       1, [sym_identifier]), (STATE 3296, 2, [sym_comment, sym_documentation_comment])])]"

lemma small_run_941: "small_run 3288 147779 ts_small_parse_table_941 3297 147986"
  by (simp add: small_simps ts_small_parse_table_941_def)

definition ts_small_parse_table_942 :: "small_group list" where
  "ts_small_parse_table_942 = [
     (147986, 7, [(ACTIONS 3, 1, [anon_sym_SLASH_SLASH]), (ACTIONS 5, 1,
       [anon_sym_SLASH_STAR]), (ACTIONS 7, 1, [anon_sym_SLASH_SLASH_SLASH]), (ACTIONS 9, 1,
       [sym__block_comment]), (ACTIONS 11, 1, [sym__documentation_block_comment]), (ACTIONS 6723,
       1, [anon_sym_RPAREN]), (STATE 3297, 2, [sym_comment, sym_documentation_comment])]),
     (148009, 7, [(ACTIONS 3, 1, [anon_sym_SLASH_SLASH]), (ACTIONS 5, 1,
       [anon_sym_SLASH_STAR]), (ACTIONS 7, 1, [anon_sym_SLASH_SLASH_SLASH]), (ACTIONS 9, 1,
       [sym__block_comment]), (ACTIONS 11, 1, [sym__documentation_block_comment]), (ACTIONS 6725,
       1, [sym_identifier]), (STATE 3298, 2, [sym_comment, sym_documentation_comment])]),
     (148032, 7, [(ACTIONS 3, 1, [anon_sym_SLASH_SLASH]), (ACTIONS 5, 1,
       [anon_sym_SLASH_STAR]), (ACTIONS 7, 1, [anon_sym_SLASH_SLASH_SLASH]), (ACTIONS 9, 1,
       [sym__block_comment]), (ACTIONS 11, 1, [sym__documentation_block_comment]), (ACTIONS 6727,
       1, [anon_sym_RPAREN]), (STATE 3299, 2, [sym_comment, sym_documentation_comment])]),
     (148055, 7, [(ACTIONS 3, 1, [anon_sym_SLASH_SLASH]), (ACTIONS 5, 1,
       [anon_sym_SLASH_STAR]), (ACTIONS 7, 1, [anon_sym_SLASH_SLASH_SLASH]), (ACTIONS 9, 1,
       [sym__block_comment]), (ACTIONS 11, 1, [sym__documentation_block_comment]), (ACTIONS 6729,
       1, [sym_identifier]), (STATE 3300, 2, [sym_comment, sym_documentation_comment])]),
     (148078, 7, [(ACTIONS 3, 1, [anon_sym_SLASH_SLASH]), (ACTIONS 5, 1,
       [anon_sym_SLASH_STAR]), (ACTIONS 7, 1, [anon_sym_SLASH_SLASH_SLASH]), (ACTIONS 9, 1,
       [sym__block_comment]), (ACTIONS 11, 1, [sym__documentation_block_comment]), (ACTIONS 5270,
       1, [anon_sym_SEMI]), (STATE 3301, 2, [sym_comment, sym_documentation_comment])]),
     (148101, 7, [(ACTIONS 3, 1, [anon_sym_SLASH_SLASH]), (ACTIONS 5, 1,
       [anon_sym_SLASH_STAR]), (ACTIONS 7, 1, [anon_sym_SLASH_SLASH_SLASH]), (ACTIONS 9, 1,
       [sym__block_comment]), (ACTIONS 11, 1, [sym__documentation_block_comment]), (ACTIONS 6731,
       1, [anon_sym_SEMI]), (STATE 3302, 2, [sym_comment, sym_documentation_comment])]),
     (148124, 7, [(ACTIONS 3, 1, [anon_sym_SLASH_SLASH]), (ACTIONS 5, 1,
       [anon_sym_SLASH_STAR]), (ACTIONS 7, 1, [anon_sym_SLASH_SLASH_SLASH]), (ACTIONS 9, 1,
       [sym__block_comment]), (ACTIONS 11, 1, [sym__documentation_block_comment]), (ACTIONS 6733,
       1, [sym_identifier]), (STATE 3303, 2, [sym_comment, sym_documentation_comment])]),
     (148147, 7, [(ACTIONS 3, 1, [anon_sym_SLASH_SLASH]), (ACTIONS 5, 1,
       [anon_sym_SLASH_STAR]), (ACTIONS 7, 1, [anon_sym_SLASH_SLASH_SLASH]), (ACTIONS 9, 1,
       [sym__block_comment]), (ACTIONS 11, 1, [sym__documentation_block_comment]), (ACTIONS 6735,
       1, [sym_identifier]), (STATE 3304, 2, [sym_comment, sym_documentation_comment])]),
     (148170, 7, [(ACTIONS 3, 1, [anon_sym_SLASH_SLASH]), (ACTIONS 5, 1,
       [anon_sym_SLASH_STAR]), (ACTIONS 7, 1, [anon_sym_SLASH_SLASH_SLASH]), (ACTIONS 9, 1,
       [sym__block_comment]), (ACTIONS 11, 1, [sym__documentation_block_comment]), (ACTIONS 6737,
       1, [sym_identifier]), (STATE 3305, 2, [sym_comment, sym_documentation_comment])])]"

lemma small_run_942: "small_run 3297 147986 ts_small_parse_table_942 3306 148193"
  by (simp add: small_simps ts_small_parse_table_942_def)

definition ts_small_parse_table_943 :: "small_group list" where
  "ts_small_parse_table_943 = [
     (148193, 7, [(ACTIONS 3, 1, [anon_sym_SLASH_SLASH]), (ACTIONS 5, 1,
       [anon_sym_SLASH_STAR]), (ACTIONS 7, 1, [anon_sym_SLASH_SLASH_SLASH]), (ACTIONS 9, 1,
       [sym__block_comment]), (ACTIONS 11, 1, [sym__documentation_block_comment]), (ACTIONS 6739,
       1, [anon_sym_RPAREN]), (STATE 3306, 2, [sym_comment, sym_documentation_comment])]),
     (148216, 7, [(ACTIONS 3, 1, [anon_sym_SLASH_SLASH]), (ACTIONS 5, 1,
       [anon_sym_SLASH_STAR]), (ACTIONS 7, 1, [anon_sym_SLASH_SLASH_SLASH]), (ACTIONS 9, 1,
       [sym__block_comment]), (ACTIONS 11, 1, [sym__documentation_block_comment]), (ACTIONS 6741,
       1, [anon_sym_RPAREN]), (STATE 3307, 2, [sym_comment, sym_documentation_comment])]),
     (148239, 7, [(ACTIONS 3, 1, [anon_sym_SLASH_SLASH]), (ACTIONS 5, 1,
       [anon_sym_SLASH_STAR]), (ACTIONS 7, 1, [anon_sym_SLASH_SLASH_SLASH]), (ACTIONS 9, 1,
       [sym__block_comment]), (ACTIONS 11, 1, [sym__documentation_block_comment]), (ACTIONS 6743,
       1, [anon_sym_on]), (STATE 3308, 2, [sym_comment, sym_documentation_comment])]),
     (148262, 7, [(ACTIONS 3, 1, [anon_sym_SLASH_SLASH]), (ACTIONS 5, 1,
       [anon_sym_SLASH_STAR]), (ACTIONS 7, 1, [anon_sym_SLASH_SLASH_SLASH]), (ACTIONS 9, 1,
       [sym__block_comment]), (ACTIONS 11, 1, [sym__documentation_block_comment]), (ACTIONS 6745,
       1, [anon_sym_RPAREN]), (STATE 3309, 2, [sym_comment, sym_documentation_comment])]),
     (148285, 7, [(ACTIONS 3, 1, [anon_sym_SLASH_SLASH]), (ACTIONS 5, 1,
       [anon_sym_SLASH_STAR]), (ACTIONS 7, 1, [anon_sym_SLASH_SLASH_SLASH]), (ACTIONS 9, 1,
       [sym__block_comment]), (ACTIONS 11, 1, [sym__documentation_block_comment]), (ACTIONS 6747,
       1, [sym_identifier]), (STATE 3310, 2, [sym_comment, sym_documentation_comment])]),
     (148308, 7, [(ACTIONS 3, 1, [anon_sym_SLASH_SLASH]), (ACTIONS 5, 1,
       [anon_sym_SLASH_STAR]), (ACTIONS 7, 1, [anon_sym_SLASH_SLASH_SLASH]), (ACTIONS 9, 1,
       [sym__block_comment]), (ACTIONS 11, 1, [sym__documentation_block_comment]), (ACTIONS 6749,
       1, [anon_sym_RPAREN]), (STATE 3311, 2, [sym_comment, sym_documentation_comment])]),
     (148331, 7, [(ACTIONS 3, 1, [anon_sym_SLASH_SLASH]), (ACTIONS 5, 1,
       [anon_sym_SLASH_STAR]), (ACTIONS 7, 1, [anon_sym_SLASH_SLASH_SLASH]), (ACTIONS 9, 1,
       [sym__block_comment]), (ACTIONS 11, 1, [sym__documentation_block_comment]), (ACTIONS 6751,
       1, [sym_identifier]), (STATE 3312, 2, [sym_comment, sym_documentation_comment])]),
     (148354, 7, [(ACTIONS 3, 1, [anon_sym_SLASH_SLASH]), (ACTIONS 5, 1,
       [anon_sym_SLASH_STAR]), (ACTIONS 7, 1, [anon_sym_SLASH_SLASH_SLASH]), (ACTIONS 9, 1,
       [sym__block_comment]), (ACTIONS 11, 1, [sym__documentation_block_comment]), (ACTIONS 6753,
       1, [anon_sym_COLON]), (STATE 3313, 2, [sym_comment, sym_documentation_comment])]),
     (148377, 7, [(ACTIONS 3, 1, [anon_sym_SLASH_SLASH]), (ACTIONS 5, 1,
       [anon_sym_SLASH_STAR]), (ACTIONS 7, 1, [anon_sym_SLASH_SLASH_SLASH]), (ACTIONS 9, 1,
       [sym__block_comment]), (ACTIONS 11, 1, [sym__documentation_block_comment]), (ACTIONS 5481,
       1, [anon_sym_SEMI]), (STATE 3314, 2, [sym_comment, sym_documentation_comment])])]"

lemma small_run_943: "small_run 3306 148193 ts_small_parse_table_943 3315 148400"
  by (simp add: small_simps ts_small_parse_table_943_def)

definition ts_small_parse_table_944 :: "small_group list" where
  "ts_small_parse_table_944 = [
     (148400, 7, [(ACTIONS 3, 1, [anon_sym_SLASH_SLASH]), (ACTIONS 5, 1,
       [anon_sym_SLASH_STAR]), (ACTIONS 7, 1, [anon_sym_SLASH_SLASH_SLASH]), (ACTIONS 9, 1,
       [sym__block_comment]), (ACTIONS 11, 1, [sym__documentation_block_comment]), (ACTIONS 6755,
       1, [anon_sym_RBRACK]), (STATE 3315, 2, [sym_comment, sym_documentation_comment])]),
     (148423, 7, [(ACTIONS 3, 1, [anon_sym_SLASH_SLASH]), (ACTIONS 5, 1,
       [anon_sym_SLASH_STAR]), (ACTIONS 7, 1, [anon_sym_SLASH_SLASH_SLASH]), (ACTIONS 9, 1,
       [sym__block_comment]), (ACTIONS 11, 1, [sym__documentation_block_comment]), (ACTIONS 3773,
       1, [anon_sym_RPAREN]), (STATE 3316, 2, [sym_comment, sym_documentation_comment])]),
     (148446, 7, [(ACTIONS 3, 1, [anon_sym_SLASH_SLASH]), (ACTIONS 5, 1,
       [anon_sym_SLASH_STAR]), (ACTIONS 7, 1, [anon_sym_SLASH_SLASH_SLASH]), (ACTIONS 9, 1,
       [sym__block_comment]), (ACTIONS 11, 1, [sym__documentation_block_comment]), (ACTIONS 6757,
       1, [anon_sym_COLON]), (STATE 3317, 2, [sym_comment, sym_documentation_comment])]),
     (148469, 7, [(ACTIONS 3, 1, [anon_sym_SLASH_SLASH]), (ACTIONS 5, 1,
       [anon_sym_SLASH_STAR]), (ACTIONS 7, 1, [anon_sym_SLASH_SLASH_SLASH]), (ACTIONS 9, 1,
       [sym__block_comment]), (ACTIONS 11, 1, [sym__documentation_block_comment]), (ACTIONS 6759,
       1, [anon_sym_RPAREN]), (STATE 3318, 2, [sym_comment, sym_documentation_comment])]),
     (148492, 7, [(ACTIONS 3, 1, [anon_sym_SLASH_SLASH]), (ACTIONS 5, 1,
       [anon_sym_SLASH_STAR]), (ACTIONS 7, 1, [anon_sym_SLASH_SLASH_SLASH]), (ACTIONS 9, 1,
       [sym__block_comment]), (ACTIONS 11, 1, [sym__documentation_block_comment]), (ACTIONS 6761,
       1, [anon_sym_DOT]), (STATE 3319, 2, [sym_comment, sym_documentation_comment])]),
     (148515, 7, [(ACTIONS 3, 1, [anon_sym_SLASH_SLASH]), (ACTIONS 5, 1,
       [anon_sym_SLASH_STAR]), (ACTIONS 7, 1, [anon_sym_SLASH_SLASH_SLASH]), (ACTIONS 9, 1,
       [sym__block_comment]), (ACTIONS 11, 1, [sym__documentation_block_comment]), (ACTIONS 6763,
       1, [anon_sym_RPAREN]), (STATE 3320, 2, [sym_comment, sym_documentation_comment])]),
     (148538, 7, [(ACTIONS 3, 1, [anon_sym_SLASH_SLASH]), (ACTIONS 5, 1,
       [anon_sym_SLASH_STAR]), (ACTIONS 7, 1, [anon_sym_SLASH_SLASH_SLASH]), (ACTIONS 9, 1,
       [sym__block_comment]), (ACTIONS 11, 1, [sym__documentation_block_comment]), (ACTIONS 6765,
       1, [anon_sym_RPAREN]), (STATE 3321, 2, [sym_comment, sym_documentation_comment])]),
     (148561, 7, [(ACTIONS 3, 1, [anon_sym_SLASH_SLASH]), (ACTIONS 5, 1,
       [anon_sym_SLASH_STAR]), (ACTIONS 7, 1, [anon_sym_SLASH_SLASH_SLASH]), (ACTIONS 9, 1,
       [sym__block_comment]), (ACTIONS 11, 1, [sym__documentation_block_comment]), (ACTIONS 6767,
       1, [anon_sym_RPAREN]), (STATE 3322, 2, [sym_comment, sym_documentation_comment])]),
     (148584, 7, [(ACTIONS 3, 1, [anon_sym_SLASH_SLASH]), (ACTIONS 5, 1,
       [anon_sym_SLASH_STAR]), (ACTIONS 7, 1, [anon_sym_SLASH_SLASH_SLASH]), (ACTIONS 9, 1,
       [sym__block_comment]), (ACTIONS 11, 1, [sym__documentation_block_comment]), (ACTIONS 6769,
       1, [anon_sym_RPAREN]), (STATE 3323, 2, [sym_comment, sym_documentation_comment])])]"

lemma small_run_944: "small_run 3315 148400 ts_small_parse_table_944 3324 148607"
  by (simp add: small_simps ts_small_parse_table_944_def)

definition ts_small_parse_table_945 :: "small_group list" where
  "ts_small_parse_table_945 = [
     (148607, 7, [(ACTIONS 3, 1, [anon_sym_SLASH_SLASH]), (ACTIONS 5, 1,
       [anon_sym_SLASH_STAR]), (ACTIONS 7, 1, [anon_sym_SLASH_SLASH_SLASH]), (ACTIONS 9, 1,
       [sym__block_comment]), (ACTIONS 11, 1, [sym__documentation_block_comment]), (ACTIONS 6771,
       1, [sym_identifier]), (STATE 3324, 2, [sym_comment, sym_documentation_comment])]),
     (148630, 7, [(ACTIONS 3, 1, [anon_sym_SLASH_SLASH]), (ACTIONS 5, 1,
       [anon_sym_SLASH_STAR]), (ACTIONS 7, 1, [anon_sym_SLASH_SLASH_SLASH]), (ACTIONS 9, 1,
       [sym__block_comment]), (ACTIONS 11, 1, [sym__documentation_block_comment]), (ACTIONS 6773,
       1, [anon_sym_RPAREN]), (STATE 3325, 2, [sym_comment, sym_documentation_comment])]),
     (148653, 7, [(ACTIONS 3, 1, [anon_sym_SLASH_SLASH]), (ACTIONS 5, 1,
       [anon_sym_SLASH_STAR]), (ACTIONS 7, 1, [anon_sym_SLASH_SLASH_SLASH]), (ACTIONS 9, 1,
       [sym__block_comment]), (ACTIONS 11, 1, [sym__documentation_block_comment]), (ACTIONS 6775,
       1, [sym_identifier]), (STATE 3326, 2, [sym_comment, sym_documentation_comment])]),
     (148676, 7, [(ACTIONS 3, 1, [anon_sym_SLASH_SLASH]), (ACTIONS 5, 1,
       [anon_sym_SLASH_STAR]), (ACTIONS 7, 1, [anon_sym_SLASH_SLASH_SLASH]), (ACTIONS 9, 1,
       [sym__block_comment]), (ACTIONS 11, 1, [sym__documentation_block_comment]), (ACTIONS 6777,
       1, [anon_sym_RPAREN]), (STATE 3327, 2, [sym_comment, sym_documentation_comment])]),
     (148699, 7, [(ACTIONS 3, 1, [anon_sym_SLASH_SLASH]), (ACTIONS 5, 1,
       [anon_sym_SLASH_STAR]), (ACTIONS 7, 1, [anon_sym_SLASH_SLASH_SLASH]), (ACTIONS 9, 1,
       [sym__block_comment]), (ACTIONS 11, 1, [sym__documentation_block_comment]), (ACTIONS 3753,
       1, [anon_sym_RPAREN]), (STATE 3328, 2, [sym_comment, sym_documentation_comment])]),
     (148722, 7, [(ACTIONS 3, 1, [anon_sym_SLASH_SLASH]), (ACTIONS 5, 1,
       [anon_sym_SLASH_STAR]), (ACTIONS 7, 1, [anon_sym_SLASH_SLASH_SLASH]), (ACTIONS 9, 1,
       [sym__block_comment]), (ACTIONS 11, 1, [sym__documentation_block_comment]), (ACTIONS 6779,
       1, [anon_sym_RBRACK]), (STATE 3329, 2, [sym_comment, sym_documentation_comment])]),
     (148745, 7, [(ACTIONS 3, 1, [anon_sym_SLASH_SLASH]), (ACTIONS 5, 1,
       [anon_sym_SLASH_STAR]), (ACTIONS 7, 1, [anon_sym_SLASH_SLASH_SLASH]), (ACTIONS 9, 1,
       [sym__block_comment]), (ACTIONS 11, 1, [sym__documentation_block_comment]), (ACTIONS 6781,
       1, [anon_sym_COLON]), (STATE 3330, 2, [sym_comment, sym_documentation_comment])]),
     (148768, 7, [(ACTIONS 3, 1, [anon_sym_SLASH_SLASH]), (ACTIONS 5, 1,
       [anon_sym_SLASH_STAR]), (ACTIONS 7, 1, [anon_sym_SLASH_SLASH_SLASH]), (ACTIONS 9, 1,
       [sym__block_comment]), (ACTIONS 11, 1, [sym__documentation_block_comment]), (ACTIONS 6783,
       1, [anon_sym_SLASH]), (STATE 3331, 2, [sym_comment, sym_documentation_comment])]),
     (148791, 7, [(ACTIONS 3, 1, [anon_sym_SLASH_SLASH]), (ACTIONS 5, 1,
       [anon_sym_SLASH_STAR]), (ACTIONS 7, 1, [anon_sym_SLASH_SLASH_SLASH]), (ACTIONS 9, 1,
       [sym__block_comment]), (ACTIONS 11, 1, [sym__documentation_block_comment]), (ACTIONS 6785,
       1, [sym_identifier]), (STATE 3332, 2, [sym_comment, sym_documentation_comment])])]"

lemma small_run_945: "small_run 3324 148607 ts_small_parse_table_945 3333 148814"
  by (simp add: small_simps ts_small_parse_table_945_def)

definition ts_small_parse_table_946 :: "small_group list" where
  "ts_small_parse_table_946 = [
     (148814, 7, [(ACTIONS 3, 1, [anon_sym_SLASH_SLASH]), (ACTIONS 5, 1,
       [anon_sym_SLASH_STAR]), (ACTIONS 7, 1, [anon_sym_SLASH_SLASH_SLASH]), (ACTIONS 9, 1,
       [sym__block_comment]), (ACTIONS 11, 1, [sym__documentation_block_comment]), (ACTIONS 6787,
       1, [sym_identifier]), (STATE 3333, 2, [sym_comment, sym_documentation_comment])]),
     (148837, 7, [(ACTIONS 3, 1, [anon_sym_SLASH_SLASH]), (ACTIONS 5, 1,
       [anon_sym_SLASH_STAR]), (ACTIONS 7, 1, [anon_sym_SLASH_SLASH_SLASH]), (ACTIONS 9, 1,
       [sym__block_comment]), (ACTIONS 11, 1, [sym__documentation_block_comment]), (ACTIONS 6610,
       1, [anon_sym_COMMA]), (STATE 3334, 2, [sym_comment, sym_documentation_comment])]),
     (148860, 7, [(ACTIONS 3, 1, [anon_sym_SLASH_SLASH]), (ACTIONS 5, 1,
       [anon_sym_SLASH_STAR]), (ACTIONS 7, 1, [anon_sym_SLASH_SLASH_SLASH]), (ACTIONS 9, 1,
       [sym__block_comment]), (ACTIONS 11, 1, [sym__documentation_block_comment]), (ACTIONS 6789,
       1, [sym_identifier]), (STATE 3335, 2, [sym_comment, sym_documentation_comment])]),
     (148883, 7, [(ACTIONS 3, 1, [anon_sym_SLASH_SLASH]), (ACTIONS 5, 1,
       [anon_sym_SLASH_STAR]), (ACTIONS 7, 1, [anon_sym_SLASH_SLASH_SLASH]), (ACTIONS 9, 1,
       [sym__block_comment]), (ACTIONS 11, 1, [sym__documentation_block_comment]), (ACTIONS 5799,
       1, [anon_sym_RPAREN]), (STATE 3336, 2, [sym_comment, sym_documentation_comment])]),
     (148906, 7, [(ACTIONS 3, 1, [anon_sym_SLASH_SLASH]), (ACTIONS 5, 1,
       [anon_sym_SLASH_STAR]), (ACTIONS 7, 1, [anon_sym_SLASH_SLASH_SLASH]), (ACTIONS 9, 1,
       [sym__block_comment]), (ACTIONS 11, 1, [sym__documentation_block_comment]), (ACTIONS 4206,
       1, [anon_sym_RPAREN]), (STATE 3337, 2, [sym_comment, sym_documentation_comment])]),
     (148929, 7, [(ACTIONS 3, 1, [anon_sym_SLASH_SLASH]), (ACTIONS 5, 1,
       [anon_sym_SLASH_STAR]), (ACTIONS 7, 1, [anon_sym_SLASH_SLASH_SLASH]), (ACTIONS 9, 1,
       [sym__block_comment]), (ACTIONS 11, 1, [sym__documentation_block_comment]), (ACTIONS 6791,
       1, [sym_identifier]), (STATE 3338, 2, [sym_comment, sym_documentation_comment])]),
     (148952, 7, [(ACTIONS 3, 1, [anon_sym_SLASH_SLASH]), (ACTIONS 5, 1,
       [anon_sym_SLASH_STAR]), (ACTIONS 7, 1, [anon_sym_SLASH_SLASH_SLASH]), (ACTIONS 9, 1,
       [sym__block_comment]), (ACTIONS 11, 1, [sym__documentation_block_comment]), (ACTIONS 6793,
       1, [anon_sym_RPAREN]), (STATE 3339, 2, [sym_comment, sym_documentation_comment])]),
     (148975, 7, [(ACTIONS 3, 1, [anon_sym_SLASH_SLASH]), (ACTIONS 5, 1,
       [anon_sym_SLASH_STAR]), (ACTIONS 7, 1, [anon_sym_SLASH_SLASH_SLASH]), (ACTIONS 9, 1,
       [sym__block_comment]), (ACTIONS 11, 1, [sym__documentation_block_comment]), (ACTIONS 6559,
       1, [anon_sym_DOT]), (STATE 3340, 2, [sym_comment, sym_documentation_comment])]),
     (148998, 7, [(ACTIONS 3, 1, [anon_sym_SLASH_SLASH]), (ACTIONS 5, 1,
       [anon_sym_SLASH_STAR]), (ACTIONS 7, 1, [anon_sym_SLASH_SLASH_SLASH]), (ACTIONS 9, 1,
       [sym__block_comment]), (ACTIONS 11, 1, [sym__documentation_block_comment]), (ACTIONS 6033,
       1, [anon_sym_RPAREN]), (STATE 3341, 2, [sym_comment, sym_documentation_comment])])]"

lemma small_run_946: "small_run 3333 148814 ts_small_parse_table_946 3342 149021"
  by (simp add: small_simps ts_small_parse_table_946_def)

definition ts_small_parse_table_947 :: "small_group list" where
  "ts_small_parse_table_947 = [
     (149021, 7, [(ACTIONS 3, 1, [anon_sym_SLASH_SLASH]), (ACTIONS 5, 1,
       [anon_sym_SLASH_STAR]), (ACTIONS 7, 1, [anon_sym_SLASH_SLASH_SLASH]), (ACTIONS 9, 1,
       [sym__block_comment]), (ACTIONS 11, 1, [sym__documentation_block_comment]), (ACTIONS 6795,
       1, [anon_sym_LPAREN]), (STATE 3342, 2, [sym_comment, sym_documentation_comment])]),
     (149044, 7, [(ACTIONS 3, 1, [anon_sym_SLASH_SLASH]), (ACTIONS 5, 1,
       [anon_sym_SLASH_STAR]), (ACTIONS 7, 1, [anon_sym_SLASH_SLASH_SLASH]), (ACTIONS 9, 1,
       [sym__block_comment]), (ACTIONS 11, 1, [sym__documentation_block_comment]), (ACTIONS 6797,
       1, [sym_identifier]), (STATE 3343, 2, [sym_comment, sym_documentation_comment])]),
     (149067, 7, [(ACTIONS 3, 1, [anon_sym_SLASH_SLASH]), (ACTIONS 5, 1,
       [anon_sym_SLASH_STAR]), (ACTIONS 7, 1, [anon_sym_SLASH_SLASH_SLASH]), (ACTIONS 9, 1,
       [sym__block_comment]), (ACTIONS 11, 1, [sym__documentation_block_comment]), (ACTIONS 6799,
       1, [sym_identifier]), (STATE 3344, 2, [sym_comment, sym_documentation_comment])]),
     (149090, 7, [(ACTIONS 3, 1, [anon_sym_SLASH_SLASH]), (ACTIONS 5, 1,
       [anon_sym_SLASH_STAR]), (ACTIONS 7, 1, [anon_sym_SLASH_SLASH_SLASH]), (ACTIONS 9, 1,
       [sym__block_comment]), (ACTIONS 11, 1, [sym__documentation_block_comment]), (ACTIONS 6801,
       1, [anon_sym_LPAREN]), (STATE 3345, 2, [sym_comment, sym_documentation_comment])]),
     (149113, 7, [(ACTIONS 3, 1, [anon_sym_SLASH_SLASH]), (ACTIONS 5, 1,
       [anon_sym_SLASH_STAR]), (ACTIONS 7, 1, [anon_sym_SLASH_SLASH_SLASH]), (ACTIONS 9, 1,
       [sym__block_comment]), (ACTIONS 11, 1, [sym__documentation_block_comment]), (ACTIONS 6803,
       1, [anon_sym_LPAREN]), (STATE 3346, 2, [sym_comment, sym_documentation_comment])]),
     (149136, 7, [(ACTIONS 3, 1, [anon_sym_SLASH_SLASH]), (ACTIONS 5, 1,
       [anon_sym_SLASH_STAR]), (ACTIONS 7, 1, [anon_sym_SLASH_SLASH_SLASH]), (ACTIONS 9, 1,
       [sym__block_comment]), (ACTIONS 11, 1, [sym__documentation_block_comment]), (ACTIONS 6805,
       1, [anon_sym_LPAREN]), (STATE 3347, 2, [sym_comment, sym_documentation_comment])]),
     (149159, 7, [(ACTIONS 3, 1, [anon_sym_SLASH_SLASH]), (ACTIONS 5, 1,
       [anon_sym_SLASH_STAR]), (ACTIONS 7, 1, [anon_sym_SLASH_SLASH_SLASH]), (ACTIONS 9, 1,
       [sym__block_comment]), (ACTIONS 11, 1, [sym__documentation_block_comment]), (ACTIONS 6807,
       1, [anon_sym_RPAREN]), (STATE 3348, 2, [sym_comment, sym_documentation_comment])]),
     (149182, 7, [(ACTIONS 3, 1, [anon_sym_SLASH_SLASH]), (ACTIONS 5, 1,
       [anon_sym_SLASH_STAR]), (ACTIONS 7, 1, [anon_sym_SLASH_SLASH_SLASH]), (ACTIONS 9, 1,
       [sym__block_comment]), (ACTIONS 11, 1, [sym__documentation_block_comment]), (ACTIONS 6809,
       1, [anon_sym_COLON]), (STATE 3349, 2, [sym_comment, sym_documentation_comment])]),
     (149205, 7, [(ACTIONS 3, 1, [anon_sym_SLASH_SLASH]), (ACTIONS 5, 1,
       [anon_sym_SLASH_STAR]), (ACTIONS 7, 1, [anon_sym_SLASH_SLASH_SLASH]), (ACTIONS 9, 1,
       [sym__block_comment]), (ACTIONS 11, 1, [sym__documentation_block_comment]), (ACTIONS 6811,
       1, [anon_sym_RPAREN]), (STATE 3350, 2, [sym_comment, sym_documentation_comment])])]"

lemma small_run_947: "small_run 3342 149021 ts_small_parse_table_947 3351 149228"
  by (simp add: small_simps ts_small_parse_table_947_def)

definition ts_small_parse_table_948 :: "small_group list" where
  "ts_small_parse_table_948 = [
     (149228, 7, [(ACTIONS 3, 1, [anon_sym_SLASH_SLASH]), (ACTIONS 5, 1,
       [anon_sym_SLASH_STAR]), (ACTIONS 7, 1, [anon_sym_SLASH_SLASH_SLASH]), (ACTIONS 9, 1,
       [sym__block_comment]), (ACTIONS 11, 1, [sym__documentation_block_comment]), (ACTIONS 6813,
       1, [anon_sym_RBRACK]), (STATE 3351, 2, [sym_comment, sym_documentation_comment])]),
     (149251, 7, [(ACTIONS 3, 1, [anon_sym_SLASH_SLASH]), (ACTIONS 5, 1,
       [anon_sym_SLASH_STAR]), (ACTIONS 7, 1, [anon_sym_SLASH_SLASH_SLASH]), (ACTIONS 9, 1,
       [sym__block_comment]), (ACTIONS 11, 1, [sym__documentation_block_comment]), (ACTIONS 3759,
       1, [anon_sym_RPAREN]), (STATE 3352, 2, [sym_comment, sym_documentation_comment])]),
     (149274, 7, [(ACTIONS 3, 1, [anon_sym_SLASH_SLASH]), (ACTIONS 5, 1,
       [anon_sym_SLASH_STAR]), (ACTIONS 7, 1, [anon_sym_SLASH_SLASH_SLASH]), (ACTIONS 9, 1,
       [sym__block_comment]), (ACTIONS 11, 1, [sym__documentation_block_comment]), (ACTIONS 6815,
       1, [anon_sym_RPAREN]), (STATE 3353, 2, [sym_comment, sym_documentation_comment])]),
     (149297, 7, [(ACTIONS 3, 1, [anon_sym_SLASH_SLASH]), (ACTIONS 5, 1,
       [anon_sym_SLASH_STAR]), (ACTIONS 7, 1, [anon_sym_SLASH_SLASH_SLASH]), (ACTIONS 9, 1,
       [sym__block_comment]), (ACTIONS 11, 1, [sym__documentation_block_comment]), (ACTIONS 6817,
       1, [anon_sym_RPAREN]), (STATE 3354, 2, [sym_comment, sym_documentation_comment])]),
     (149320, 7, [(ACTIONS 3, 1, [anon_sym_SLASH_SLASH]), (ACTIONS 5, 1,
       [anon_sym_SLASH_STAR]), (ACTIONS 7, 1, [anon_sym_SLASH_SLASH_SLASH]), (ACTIONS 9, 1,
       [sym__block_comment]), (ACTIONS 11, 1, [sym__documentation_block_comment]), (ACTIONS 6819,
       1, [anon_sym_RPAREN]), (STATE 3355, 2, [sym_comment, sym_documentation_comment])]),
     (149343, 7, [(ACTIONS 3, 1, [anon_sym_SLASH_SLASH]), (ACTIONS 5, 1,
       [anon_sym_SLASH_STAR]), (ACTIONS 7, 1, [anon_sym_SLASH_SLASH_SLASH]), (ACTIONS 9, 1,
       [sym__block_comment]), (ACTIONS 11, 1, [sym__documentation_block_comment]), (ACTIONS 6821,
       1, [anon_sym_RPAREN]), (STATE 3356, 2, [sym_comment, sym_documentation_comment])]),
     (149366, 7, [(ACTIONS 3, 1, [anon_sym_SLASH_SLASH]), (ACTIONS 5, 1,
       [anon_sym_SLASH_STAR]), (ACTIONS 7, 1, [anon_sym_SLASH_SLASH_SLASH]), (ACTIONS 9, 1,
       [sym__block_comment]), (ACTIONS 11, 1, [sym__documentation_block_comment]), (ACTIONS 6823,
       1, [anon_sym_RPAREN]), (STATE 3357, 2, [sym_comment, sym_documentation_comment])]),
     (149389, 7, [(ACTIONS 3, 1, [anon_sym_SLASH_SLASH]), (ACTIONS 5, 1,
       [anon_sym_SLASH_STAR]), (ACTIONS 7, 1, [anon_sym_SLASH_SLASH_SLASH]), (ACTIONS 9, 1,
       [sym__block_comment]), (ACTIONS 11, 1, [sym__documentation_block_comment]), (ACTIONS 6825,
       1, [anon_sym_RPAREN]), (STATE 3358, 2, [sym_comment, sym_documentation_comment])]),
     (149412, 7, [(ACTIONS 3, 1, [anon_sym_SLASH_SLASH]), (ACTIONS 5, 1,
       [anon_sym_SLASH_STAR]), (ACTIONS 7, 1, [anon_sym_SLASH_SLASH_SLASH]), (ACTIONS 9, 1,
       [sym__block_comment]), (ACTIONS 11, 1, [sym__documentation_block_comment]), (ACTIONS 6827,
       1, [anon_sym_RPAREN]), (STATE 3359, 2, [sym_comment, sym_documentation_comment])])]"

lemma small_run_948: "small_run 3351 149228 ts_small_parse_table_948 3360 149435"
  by (simp add: small_simps ts_small_parse_table_948_def)

definition ts_small_parse_table_949 :: "small_group list" where
  "ts_small_parse_table_949 = [
     (149435, 7, [(ACTIONS 3, 1, [anon_sym_SLASH_SLASH]), (ACTIONS 5, 1,
       [anon_sym_SLASH_STAR]), (ACTIONS 7, 1, [anon_sym_SLASH_SLASH_SLASH]), (ACTIONS 9, 1,
       [sym__block_comment]), (ACTIONS 11, 1, [sym__documentation_block_comment]), (ACTIONS 6829,
       1, [anon_sym_RPAREN]), (STATE 3360, 2, [sym_comment, sym_documentation_comment])]),
     (149458, 7, [(ACTIONS 3, 1, [anon_sym_SLASH_SLASH]), (ACTIONS 5, 1,
       [anon_sym_SLASH_STAR]), (ACTIONS 7, 1, [anon_sym_SLASH_SLASH_SLASH]), (ACTIONS 9, 1,
       [sym__block_comment]), (ACTIONS 11, 1, [sym__documentation_block_comment]), (ACTIONS 6831,
       1, [sym_identifier]), (STATE 3361, 2, [sym_comment, sym_documentation_comment])]),
     (149481, 7, [(ACTIONS 3, 1, [anon_sym_SLASH_SLASH]), (ACTIONS 5, 1,
       [anon_sym_SLASH_STAR]), (ACTIONS 7, 1, [anon_sym_SLASH_SLASH_SLASH]), (ACTIONS 9, 1,
       [sym__block_comment]), (ACTIONS 11, 1, [sym__documentation_block_comment]), (ACTIONS 6833,
       1, [anon_sym_RBRACE]), (STATE 3362, 2, [sym_comment, sym_documentation_comment])]),
     (149504, 7, [(ACTIONS 3, 1, [anon_sym_SLASH_SLASH]), (ACTIONS 5, 1,
       [anon_sym_SLASH_STAR]), (ACTIONS 7, 1, [anon_sym_SLASH_SLASH_SLASH]), (ACTIONS 9, 1,
       [sym__block_comment]), (ACTIONS 11, 1, [sym__documentation_block_comment]), (ACTIONS 6835,
       1, [anon_sym_RPAREN]), (STATE 3363, 2, [sym_comment, sym_documentation_comment])]),
     (149527, 7, [(ACTIONS 3, 1, [anon_sym_SLASH_SLASH]), (ACTIONS 5, 1,
       [anon_sym_SLASH_STAR]), (ACTIONS 7, 1, [anon_sym_SLASH_SLASH_SLASH]), (ACTIONS 9, 1,
       [sym__block_comment]), (ACTIONS 11, 1, [sym__documentation_block_comment]), (ACTIONS 6837,
       1, [anon_sym_RPAREN]), (STATE 3364, 2, [sym_comment, sym_documentation_comment])]),
     (149550, 7, [(ACTIONS 3, 1, [anon_sym_SLASH_SLASH]), (ACTIONS 5, 1,
       [anon_sym_SLASH_STAR]), (ACTIONS 7, 1, [anon_sym_SLASH_SLASH_SLASH]), (ACTIONS 9, 1,
       [sym__block_comment]), (ACTIONS 11, 1, [sym__documentation_block_comment]), (ACTIONS 6839,
       1, [anon_sym_RPAREN]), (STATE 3365, 2, [sym_comment, sym_documentation_comment])]),
     (149573, 7, [(ACTIONS 3, 1, [anon_sym_SLASH_SLASH]), (ACTIONS 5, 1,
       [anon_sym_SLASH_STAR]), (ACTIONS 7, 1, [anon_sym_SLASH_SLASH_SLASH]), (ACTIONS 9, 1,
       [sym__block_comment]), (ACTIONS 11, 1, [sym__documentation_block_comment]), (ACTIONS 6841,
       1, [sym_identifier]), (STATE 3366, 2, [sym_comment, sym_documentation_comment])]),
     (149596, 7, [(ACTIONS 3, 1, [anon_sym_SLASH_SLASH]), (ACTIONS 5, 1,
       [anon_sym_SLASH_STAR]), (ACTIONS 7, 1, [anon_sym_SLASH_SLASH_SLASH]), (ACTIONS 9, 1,
       [sym__block_comment]), (ACTIONS 11, 1, [sym__documentation_block_comment]), (ACTIONS 6843,
       1, [sym_identifier]), (STATE 3367, 2, [sym_comment, sym_documentation_comment])]),
     (149619, 7, [(ACTIONS 3, 1, [anon_sym_SLASH_SLASH]), (ACTIONS 5, 1,
       [anon_sym_SLASH_STAR]), (ACTIONS 7, 1, [anon_sym_SLASH_SLASH_SLASH]), (ACTIONS 9, 1,
       [sym__block_comment]), (ACTIONS 11, 1, [sym__documentation_block_comment]), (ACTIONS 6845,
       1, [anon_sym_LBRACE]), (STATE 3368, 2, [sym_comment, sym_documentation_comment])])]"

lemma small_run_949: "small_run 3360 149435 ts_small_parse_table_949 3369 149642"
  by (simp add: small_simps ts_small_parse_table_949_def)

definition ts_small_parse_table_950 :: "small_group list" where
  "ts_small_parse_table_950 = [
     (149642, 7, [(ACTIONS 3, 1, [anon_sym_SLASH_SLASH]), (ACTIONS 5, 1,
       [anon_sym_SLASH_STAR]), (ACTIONS 7, 1, [anon_sym_SLASH_SLASH_SLASH]), (ACTIONS 9, 1,
       [sym__block_comment]), (ACTIONS 11, 1, [sym__documentation_block_comment]), (ACTIONS 5260,
       1, [sym_identifier]), (STATE 3369, 2, [sym_comment, sym_documentation_comment])]),
     (149665, 7, [(ACTIONS 3, 1, [anon_sym_SLASH_SLASH]), (ACTIONS 5, 1,
       [anon_sym_SLASH_STAR]), (ACTIONS 7, 1, [anon_sym_SLASH_SLASH_SLASH]), (ACTIONS 9, 1,
       [sym__block_comment]), (ACTIONS 11, 1, [sym__documentation_block_comment]), (ACTIONS 6847,
       1, [anon_sym_RBRACK]), (STATE 3370, 2, [sym_comment, sym_documentation_comment])]),
     (149688, 7, [(ACTIONS 3, 1, [anon_sym_SLASH_SLASH]), (ACTIONS 5, 1,
       [anon_sym_SLASH_STAR]), (ACTIONS 7, 1, [anon_sym_SLASH_SLASH_SLASH]), (ACTIONS 9, 1,
       [sym__block_comment]), (ACTIONS 11, 1, [sym__documentation_block_comment]), (ACTIONS 6849,
       1, [anon_sym_LBRACE]), (STATE 3371, 2, [sym_comment, sym_documentation_comment])]),
     (149711, 7, [(ACTIONS 3, 1, [anon_sym_SLASH_SLASH]), (ACTIONS 5, 1,
       [anon_sym_SLASH_STAR]), (ACTIONS 7, 1, [anon_sym_SLASH_SLASH_SLASH]), (ACTIONS 9, 1,
       [sym__block_comment]), (ACTIONS 11, 1, [sym__documentation_block_comment]), (ACTIONS 6851,
       1, [sym_identifier]), (STATE 3372, 2, [sym_comment, sym_documentation_comment])]),
     (149734, 7, [(ACTIONS 3, 1, [anon_sym_SLASH_SLASH]), (ACTIONS 5, 1,
       [anon_sym_SLASH_STAR]), (ACTIONS 7, 1, [anon_sym_SLASH_SLASH_SLASH]), (ACTIONS 9, 1,
       [sym__block_comment]), (ACTIONS 11, 1, [sym__documentation_block_comment]), (ACTIONS 6853,
       1, [sym_identifier]), (STATE 3373, 2, [sym_comment, sym_documentation_comment])]),
     (149757, 7, [(ACTIONS 3, 1, [anon_sym_SLASH_SLASH]), (ACTIONS 5, 1,
       [anon_sym_SLASH_STAR]), (ACTIONS 7, 1, [anon_sym_SLASH_SLASH_SLASH]), (ACTIONS 9, 1,
       [sym__block_comment]), (ACTIONS 11, 1, [sym__documentation_block_comment]), (ACTIONS 6855,
       1, [sym_identifier]), (STATE 3374, 2, [sym_comment, sym_documentation_comment])]),
     (149780, 7, [(ACTIONS 3, 1, [anon_sym_SLASH_SLASH]), (ACTIONS 5, 1,
       [anon_sym_SLASH_STAR]), (ACTIONS 7, 1, [anon_sym_SLASH_SLASH_SLASH]), (ACTIONS 9, 1,
       [sym__block_comment]), (ACTIONS 11, 1, [sym__documentation_block_comment]), (ACTIONS 6857,
       1, [anon_sym_RPAREN]), (STATE 3375, 2, [sym_comment, sym_documentation_comment])]),
     (149803, 7, [(ACTIONS 3, 1, [anon_sym_SLASH_SLASH]), (ACTIONS 5, 1,
       [anon_sym_SLASH_STAR]), (ACTIONS 7, 1, [anon_sym_SLASH_SLASH_SLASH]), (ACTIONS 9, 1,
       [sym__block_comment]), (ACTIONS 11, 1, [sym__documentation_block_comment]), (ACTIONS 6859,
       1, [sym_identifier]), (STATE 3376, 2, [sym_comment, sym_documentation_comment])]),
     (149826, 7, [(ACTIONS 3, 1, [anon_sym_SLASH_SLASH]), (ACTIONS 5, 1,
       [anon_sym_SLASH_STAR]), (ACTIONS 7, 1, [anon_sym_SLASH_SLASH_SLASH]), (ACTIONS 9, 1,
       [sym__block_comment]), (ACTIONS 11, 1, [sym__documentation_block_comment]), (ACTIONS 6861,
       1, [anon_sym_RPAREN]), (STATE 3377, 2, [sym_comment, sym_documentation_comment])])]"

lemma small_run_950: "small_run 3369 149642 ts_small_parse_table_950 3378 149849"
  by (simp add: small_simps ts_small_parse_table_950_def)

definition ts_small_parse_table_951 :: "small_group list" where
  "ts_small_parse_table_951 = [
     (149849, 7, [(ACTIONS 3, 1, [anon_sym_SLASH_SLASH]), (ACTIONS 5, 1,
       [anon_sym_SLASH_STAR]), (ACTIONS 7, 1, [anon_sym_SLASH_SLASH_SLASH]), (ACTIONS 9, 1,
       [sym__block_comment]), (ACTIONS 11, 1, [sym__documentation_block_comment]), (ACTIONS 6863,
       1, [sym_identifier]), (STATE 3378, 2, [sym_comment, sym_documentation_comment])]),
     (149872, 7, [(ACTIONS 3, 1, [anon_sym_SLASH_SLASH]), (ACTIONS 5, 1,
       [anon_sym_SLASH_STAR]), (ACTIONS 7, 1, [anon_sym_SLASH_SLASH_SLASH]), (ACTIONS 9, 1,
       [sym__block_comment]), (ACTIONS 11, 1, [sym__documentation_block_comment]), (ACTIONS 6865,
       1, [sym_identifier]), (STATE 3379, 2, [sym_comment, sym_documentation_comment])]),
     (149895, 7, [(ACTIONS 3, 1, [anon_sym_SLASH_SLASH]), (ACTIONS 5, 1,
       [anon_sym_SLASH_STAR]), (ACTIONS 7, 1, [anon_sym_SLASH_SLASH_SLASH]), (ACTIONS 9, 1,
       [sym__block_comment]), (ACTIONS 11, 1, [sym__documentation_block_comment]), (ACTIONS 6867,
       1, [anon_sym_SEMI]), (STATE 3380, 2, [sym_comment, sym_documentation_comment])]),
     (149918, 7, [(ACTIONS 3, 1, [anon_sym_SLASH_SLASH]), (ACTIONS 5, 1,
       [anon_sym_SLASH_STAR]), (ACTIONS 7, 1, [anon_sym_SLASH_SLASH_SLASH]), (ACTIONS 9, 1,
       [sym__block_comment]), (ACTIONS 11, 1, [sym__documentation_block_comment]), (ACTIONS 6869,
       1, [anon_sym_RBRACK]), (STATE 3381, 2, [sym_comment, sym_documentation_comment])]),
     (149941, 7, [(ACTIONS 3, 1, [anon_sym_SLASH_SLASH]), (ACTIONS 5, 1,
       [anon_sym_SLASH_STAR]), (ACTIONS 7, 1, [anon_sym_SLASH_SLASH_SLASH]), (ACTIONS 9, 1,
       [sym__block_comment]), (ACTIONS 11, 1, [sym__documentation_block_comment]), (ACTIONS 6871,
       1, [sym_identifier]), (STATE 3382, 2, [sym_comment, sym_documentation_comment])]),
     (149964, 7, [(ACTIONS 3, 1, [anon_sym_SLASH_SLASH]), (ACTIONS 5, 1,
       [anon_sym_SLASH_STAR]), (ACTIONS 7, 1, [anon_sym_SLASH_SLASH_SLASH]), (ACTIONS 9, 1,
       [sym__block_comment]), (ACTIONS 11, 1, [sym__documentation_block_comment]), (ACTIONS 6873,
       1, [sym_identifier]), (STATE 3383, 2, [sym_comment, sym_documentation_comment])]),
     (149987, 7, [(ACTIONS 3, 1, [anon_sym_SLASH_SLASH]), (ACTIONS 5, 1,
       [anon_sym_SLASH_STAR]), (ACTIONS 7, 1, [anon_sym_SLASH_SLASH_SLASH]), (ACTIONS 9, 1,
       [sym__block_comment]), (ACTIONS 11, 1, [sym__documentation_block_comment]), (ACTIONS 6875,
       1, [anon_sym_RPAREN]), (STATE 3384, 2, [sym_comment, sym_documentation_comment])]),
     (150010, 7, [(ACTIONS 3, 1, [anon_sym_SLASH_SLASH]), (ACTIONS 5, 1,
       [anon_sym_SLASH_STAR]), (ACTIONS 7, 1, [anon_sym_SLASH_SLASH_SLASH]), (ACTIONS 9, 1,
       [sym__block_comment]), (ACTIONS 11, 1, [sym__documentation_block_comment]), (ACTIONS 6877,
       1, [anon_sym_RPAREN]), (STATE 3385, 2, [sym_comment, sym_documentation_comment])]),
     (150033, 7, [(ACTIONS 3, 1, [anon_sym_SLASH_SLASH]), (ACTIONS 5, 1,
       [anon_sym_SLASH_STAR]), (ACTIONS 7, 1, [anon_sym_SLASH_SLASH_SLASH]), (ACTIONS 9, 1,
       [sym__block_comment]), (ACTIONS 11, 1, [sym__documentation_block_comment]), (ACTIONS 6879,
       1, [sym_identifier]), (STATE 3386, 2, [sym_comment, sym_documentation_comment])])]"

lemma small_run_951: "small_run 3378 149849 ts_small_parse_table_951 3387 150056"
  by (simp add: small_simps ts_small_parse_table_951_def)

definition ts_small_parse_table_952 :: "small_group list" where
  "ts_small_parse_table_952 = [
     (150056, 7, [(ACTIONS 3, 1, [anon_sym_SLASH_SLASH]), (ACTIONS 5, 1,
       [anon_sym_SLASH_STAR]), (ACTIONS 7, 1, [anon_sym_SLASH_SLASH_SLASH]), (ACTIONS 9, 1,
       [sym__block_comment]), (ACTIONS 11, 1, [sym__documentation_block_comment]), (ACTIONS 6881,
       1, [sym_identifier]), (STATE 3387, 2, [sym_comment, sym_documentation_comment])]),
     (150079, 7, [(ACTIONS 3, 1, [anon_sym_SLASH_SLASH]), (ACTIONS 5, 1,
       [anon_sym_SLASH_STAR]), (ACTIONS 7, 1, [anon_sym_SLASH_SLASH_SLASH]), (ACTIONS 9, 1,
       [sym__block_comment]), (ACTIONS 11, 1, [sym__documentation_block_comment]), (ACTIONS 6883,
       1, [anon_sym_RBRACK]), (STATE 3388, 2, [sym_comment, sym_documentation_comment])]),
     (150102, 7, [(ACTIONS 3, 1, [anon_sym_SLASH_SLASH]), (ACTIONS 5, 1,
       [anon_sym_SLASH_STAR]), (ACTIONS 7, 1, [anon_sym_SLASH_SLASH_SLASH]), (ACTIONS 9, 1,
       [sym__block_comment]), (ACTIONS 11, 1, [sym__documentation_block_comment]), (ACTIONS 6885,
       1, [sym_identifier]), (STATE 3389, 2, [sym_comment, sym_documentation_comment])]),
     (150125, 7, [(ACTIONS 3, 1, [anon_sym_SLASH_SLASH]), (ACTIONS 5, 1,
       [anon_sym_SLASH_STAR]), (ACTIONS 7, 1, [anon_sym_SLASH_SLASH_SLASH]), (ACTIONS 9, 1,
       [sym__block_comment]), (ACTIONS 11, 1, [sym__documentation_block_comment]), (ACTIONS 4168,
       1, [anon_sym_RPAREN]), (STATE 3390, 2, [sym_comment, sym_documentation_comment])]),
     (150148, 7, [(ACTIONS 3, 1, [anon_sym_SLASH_SLASH]), (ACTIONS 5, 1,
       [anon_sym_SLASH_STAR]), (ACTIONS 7, 1, [anon_sym_SLASH_SLASH_SLASH]), (ACTIONS 9, 1,
       [sym__block_comment]), (ACTIONS 11, 1, [sym__documentation_block_comment]), (ACTIONS 6887,
       1, [sym_identifier]), (STATE 3391, 2, [sym_comment, sym_documentation_comment])]),
     (150171, 7, [(ACTIONS 3, 1, [anon_sym_SLASH_SLASH]), (ACTIONS 5, 1,
       [anon_sym_SLASH_STAR]), (ACTIONS 7, 1, [anon_sym_SLASH_SLASH_SLASH]), (ACTIONS 9, 1,
       [sym__block_comment]), (ACTIONS 11, 1, [sym__documentation_block_comment]), (ACTIONS 6889,
       1, [sym_identifier]), (STATE 3392, 2, [sym_comment, sym_documentation_comment])]),
     (150194, 7, [(ACTIONS 3, 1, [anon_sym_SLASH_SLASH]), (ACTIONS 5, 1,
       [anon_sym_SLASH_STAR]), (ACTIONS 7, 1, [anon_sym_SLASH_SLASH_SLASH]), (ACTIONS 9, 1,
       [sym__block_comment]), (ACTIONS 11, 1, [sym__documentation_block_comment]), (ACTIONS 6891,
       1, [anon_sym_RBRACK]), (STATE 3393, 2, [sym_comment, sym_documentation_comment])]),
     (150217, 7, [(ACTIONS 3, 1, [anon_sym_SLASH_SLASH]), (ACTIONS 5, 1,
       [anon_sym_SLASH_STAR]), (ACTIONS 7, 1, [anon_sym_SLASH_SLASH_SLASH]), (ACTIONS 9, 1,
       [sym__block_comment]), (ACTIONS 11, 1, [sym__documentation_block_comment]), (ACTIONS 6090,
       1, [anon_sym_RPAREN]), (STATE 3394, 2, [sym_comment, sym_documentation_comment])]),
     (150240, 7, [(ACTIONS 3, 1, [anon_sym_SLASH_SLASH]), (ACTIONS 5, 1,
       [anon_sym_SLASH_STAR]), (ACTIONS 7, 1, [anon_sym_SLASH_SLASH_SLASH]), (ACTIONS 9, 1,
       [sym__block_comment]), (ACTIONS 11, 1, [sym__documentation_block_comment]), (ACTIONS 6893,
       1, [anon_sym_EQ]), (STATE 3395, 2, [sym_comment, sym_documentation_comment])])]"

lemma small_run_952: "small_run 3387 150056 ts_small_parse_table_952 3396 150263"
  by (simp add: small_simps ts_small_parse_table_952_def)

definition ts_small_parse_table_953 :: "small_group list" where
  "ts_small_parse_table_953 = [
     (150263, 7, [(ACTIONS 3, 1, [anon_sym_SLASH_SLASH]), (ACTIONS 5, 1,
       [anon_sym_SLASH_STAR]), (ACTIONS 7, 1, [anon_sym_SLASH_SLASH_SLASH]), (ACTIONS 9, 1,
       [sym__block_comment]), (ACTIONS 11, 1, [sym__documentation_block_comment]), (ACTIONS 6895,
       1, [sym_identifier]), (STATE 3396, 2, [sym_comment, sym_documentation_comment])]),
     (150286, 7, [(ACTIONS 3, 1, [anon_sym_SLASH_SLASH]), (ACTIONS 5, 1,
       [anon_sym_SLASH_STAR]), (ACTIONS 7, 1, [anon_sym_SLASH_SLASH_SLASH]), (ACTIONS 9, 1,
       [sym__block_comment]), (ACTIONS 11, 1, [sym__documentation_block_comment]), (ACTIONS 6897,
       1, [sym_identifier]), (STATE 3397, 2, [sym_comment, sym_documentation_comment])]),
     (150309, 7, [(ACTIONS 3, 1, [anon_sym_SLASH_SLASH]), (ACTIONS 5, 1,
       [anon_sym_SLASH_STAR]), (ACTIONS 7, 1, [anon_sym_SLASH_SLASH_SLASH]), (ACTIONS 9, 1,
       [sym__block_comment]), (ACTIONS 11, 1, [sym__documentation_block_comment]), (ACTIONS 6899,
       1, [anon_sym_RBRACK]), (STATE 3398, 2, [sym_comment, sym_documentation_comment])]),
     (150332, 7, [(ACTIONS 3, 1, [anon_sym_SLASH_SLASH]), (ACTIONS 5, 1,
       [anon_sym_SLASH_STAR]), (ACTIONS 7, 1, [anon_sym_SLASH_SLASH_SLASH]), (ACTIONS 9, 1,
       [sym__block_comment]), (ACTIONS 11, 1, [sym__documentation_block_comment]), (ACTIONS 6901,
       1, [anon_sym_SEMI]), (STATE 3399, 2, [sym_comment, sym_documentation_comment])]),
     (150355, 7, [(ACTIONS 3, 1, [anon_sym_SLASH_SLASH]), (ACTIONS 5, 1,
       [anon_sym_SLASH_STAR]), (ACTIONS 7, 1, [anon_sym_SLASH_SLASH_SLASH]), (ACTIONS 9, 1,
       [sym__block_comment]), (ACTIONS 11, 1, [sym__documentation_block_comment]), (ACTIONS 6108,
       1, [anon_sym_RPAREN]), (STATE 3400, 2, [sym_comment, sym_documentation_comment])]),
     (150378, 7, [(ACTIONS 3, 1, [anon_sym_SLASH_SLASH]), (ACTIONS 5, 1,
       [anon_sym_SLASH_STAR]), (ACTIONS 7, 1, [anon_sym_SLASH_SLASH_SLASH]), (ACTIONS 9, 1,
       [sym__block_comment]), (ACTIONS 11, 1, [sym__documentation_block_comment]), (ACTIONS 6903,
       1, [sym_identifier]), (STATE 3401, 2, [sym_comment, sym_documentation_comment])]),
     (150401, 7, [(ACTIONS 3, 1, [anon_sym_SLASH_SLASH]), (ACTIONS 5, 1,
       [anon_sym_SLASH_STAR]), (ACTIONS 7, 1, [anon_sym_SLASH_SLASH_SLASH]), (ACTIONS 9, 1,
       [sym__block_comment]), (ACTIONS 11, 1, [sym__documentation_block_comment]), (ACTIONS 6905,
       1, [sym_identifier]), (STATE 3402, 2, [sym_comment, sym_documentation_comment])]),
     (150424, 7, [(ACTIONS 3, 1, [anon_sym_SLASH_SLASH]), (ACTIONS 5, 1,
       [anon_sym_SLASH_STAR]), (ACTIONS 7, 1, [anon_sym_SLASH_SLASH_SLASH]), (ACTIONS 9, 1,
       [sym__block_comment]), (ACTIONS 11, 1, [sym__documentation_block_comment]), (ACTIONS 6907,
       1, [anon_sym_RBRACK]), (STATE 3403, 2, [sym_comment, sym_documentation_comment])]),
     (150447, 7, [(ACTIONS 3, 1, [anon_sym_SLASH_SLASH]), (ACTIONS 5, 1,
       [anon_sym_SLASH_STAR]), (ACTIONS 7, 1, [anon_sym_SLASH_SLASH_SLASH]), (ACTIONS 9, 1,
       [sym__block_comment]), (ACTIONS 11, 1, [sym__documentation_block_comment]), (ACTIONS 4160,
       1, [anon_sym_RPAREN]), (STATE 3404, 2, [sym_comment, sym_documentation_comment])])]"

lemma small_run_953: "small_run 3396 150263 ts_small_parse_table_953 3405 150470"
  by (simp add: small_simps ts_small_parse_table_953_def)

definition ts_small_parse_table_954 :: "small_group list" where
  "ts_small_parse_table_954 = [
     (150470, 7, [(ACTIONS 3, 1, [anon_sym_SLASH_SLASH]), (ACTIONS 5, 1,
       [anon_sym_SLASH_STAR]), (ACTIONS 7, 1, [anon_sym_SLASH_SLASH_SLASH]), (ACTIONS 9, 1,
       [sym__block_comment]), (ACTIONS 11, 1, [sym__documentation_block_comment]), (ACTIONS 6909,
       1, [sym_identifier]), (STATE 3405, 2, [sym_comment, sym_documentation_comment])]),
     (150493, 7, [(ACTIONS 3, 1, [anon_sym_SLASH_SLASH]), (ACTIONS 5, 1,
       [anon_sym_SLASH_STAR]), (ACTIONS 7, 1, [anon_sym_SLASH_SLASH_SLASH]), (ACTIONS 9, 1,
       [sym__block_comment]), (ACTIONS 11, 1, [sym__documentation_block_comment]), (ACTIONS 6911,
       1, [sym_identifier]), (STATE 3406, 2, [sym_comment, sym_documentation_comment])]),
     (150516, 7, [(ACTIONS 3, 1, [anon_sym_SLASH_SLASH]), (ACTIONS 5, 1,
       [anon_sym_SLASH_STAR]), (ACTIONS 7, 1, [anon_sym_SLASH_SLASH_SLASH]), (ACTIONS 9, 1,
       [sym__block_comment]), (ACTIONS 11, 1, [sym__documentation_block_comment]), (ACTIONS 6913,
       1, [anon_sym_RBRACK]), (STATE 3407, 2, [sym_comment, sym_documentation_comment])]),
     (150539, 7, [(ACTIONS 3, 1, [anon_sym_SLASH_SLASH]), (ACTIONS 5, 1,
       [anon_sym_SLASH_STAR]), (ACTIONS 7, 1, [anon_sym_SLASH_SLASH_SLASH]), (ACTIONS 9, 1,
       [sym__block_comment]), (ACTIONS 11, 1, [sym__documentation_block_comment]), (ACTIONS 6915,
       1, [anon_sym_EQ_GT]), (STATE 3408, 2, [sym_comment, sym_documentation_comment])]),
     (150562, 7, [(ACTIONS 3, 1, [anon_sym_SLASH_SLASH]), (ACTIONS 5, 1,
       [anon_sym_SLASH_STAR]), (ACTIONS 7, 1, [anon_sym_SLASH_SLASH_SLASH]), (ACTIONS 9, 1,
       [sym__block_comment]), (ACTIONS 11, 1, [sym__documentation_block_comment]), (ACTIONS 6917,
       1, [anon_sym_EQ]), (STATE 3409, 2, [sym_comment, sym_documentation_comment])]),
     (150585, 7, [(ACTIONS 3, 1, [anon_sym_SLASH_SLASH]), (ACTIONS 5, 1,
       [anon_sym_SLASH_STAR]), (ACTIONS 7, 1, [anon_sym_SLASH_SLASH_SLASH]), (ACTIONS 9, 1,
       [sym__block_comment]), (ACTIONS 11, 1, [sym__documentation_block_comment]), (ACTIONS 6919,
       1, [anon_sym_EQ]), (STATE 3410, 2, [sym_comment, sym_documentation_comment])]),
     (150608, 7, [(ACTIONS 3, 1, [anon_sym_SLASH_SLASH]), (ACTIONS 5, 1,
       [anon_sym_SLASH_STAR]), (ACTIONS 7, 1, [anon_sym_SLASH_SLASH_SLASH]), (ACTIONS 9, 1,
       [sym__block_comment]), (ACTIONS 11, 1, [sym__documentation_block_comment]), (ACTIONS 6921,
       1, [sym_identifier]), (STATE 3411, 2, [sym_comment, sym_documentation_comment])]),
     (150631, 7, [(ACTIONS 3, 1, [anon_sym_SLASH_SLASH]), (ACTIONS 5, 1,
       [anon_sym_SLASH_STAR]), (ACTIONS 7, 1, [anon_sym_SLASH_SLASH_SLASH]), (ACTIONS 9, 1,
       [sym__block_comment]), (ACTIONS 11, 1, [sym__documentation_block_comment]), (ACTIONS 6923,
       1, [sym_identifier]), (STATE 3412, 2, [sym_comment, sym_documentation_comment])]),
     (150654, 7, [(ACTIONS 3, 1, [anon_sym_SLASH_SLASH]), (ACTIONS 5, 1,
       [anon_sym_SLASH_STAR]), (ACTIONS 7, 1, [anon_sym_SLASH_SLASH_SLASH]), (ACTIONS 9, 1,
       [sym__block_comment]), (ACTIONS 11, 1, [sym__documentation_block_comment]), (ACTIONS 6555,
       1, [anon_sym_EQ]), (STATE 3413, 2, [sym_comment, sym_documentation_comment])])]"

lemma small_run_954: "small_run 3405 150470 ts_small_parse_table_954 3414 150677"
  by (simp add: small_simps ts_small_parse_table_954_def)

definition ts_small_parse_table_955 :: "small_group list" where
  "ts_small_parse_table_955 = [
     (150677, 7, [(ACTIONS 3, 1, [anon_sym_SLASH_SLASH]), (ACTIONS 5, 1,
       [anon_sym_SLASH_STAR]), (ACTIONS 7, 1, [anon_sym_SLASH_SLASH_SLASH]), (ACTIONS 9, 1,
       [sym__block_comment]), (ACTIONS 11, 1, [sym__documentation_block_comment]), (ACTIONS 6925,
       1, [anon_sym_RPAREN]), (STATE 3414, 2, [sym_comment, sym_documentation_comment])]),
     (150700, 7, [(ACTIONS 3, 1, [anon_sym_SLASH_SLASH]), (ACTIONS 5, 1,
       [anon_sym_SLASH_STAR]), (ACTIONS 7, 1, [anon_sym_SLASH_SLASH_SLASH]), (ACTIONS 9, 1,
       [sym__block_comment]), (ACTIONS 11, 1, [sym__documentation_block_comment]), (ACTIONS 6927,
       1, [anon_sym_SEMI]), (STATE 3415, 2, [sym_comment, sym_documentation_comment])]),
     (150723, 7, [(ACTIONS 3, 1, [anon_sym_SLASH_SLASH]), (ACTIONS 5, 1,
       [anon_sym_SLASH_STAR]), (ACTIONS 7, 1, [anon_sym_SLASH_SLASH_SLASH]), (ACTIONS 9, 1,
       [sym__block_comment]), (ACTIONS 11, 1, [sym__documentation_block_comment]), (ACTIONS 6929,
       1, [sym_identifier]), (STATE 3416, 2, [sym_comment, sym_documentation_comment])]),
     (150746, 7, [(ACTIONS 3, 1, [anon_sym_SLASH_SLASH]), (ACTIONS 5, 1,
       [anon_sym_SLASH_STAR]), (ACTIONS 7, 1, [anon_sym_SLASH_SLASH_SLASH]), (ACTIONS 9, 1,
       [sym__block_comment]), (ACTIONS 11, 1, [sym__documentation_block_comment]), (ACTIONS 6931,
       1, [anon_sym_RPAREN]), (STATE 3417, 2, [sym_comment, sym_documentation_comment])]),
     (150769, 7, [(ACTIONS 3, 1, [anon_sym_SLASH_SLASH]), (ACTIONS 5, 1,
       [anon_sym_SLASH_STAR]), (ACTIONS 7, 1, [anon_sym_SLASH_SLASH_SLASH]), (ACTIONS 9, 1,
       [sym__block_comment]), (ACTIONS 11, 1, [sym__documentation_block_comment]), (ACTIONS 6933,
       1, [anon_sym_SEMI]), (STATE 3418, 2, [sym_comment, sym_documentation_comment])]),
     (150792, 7, [(ACTIONS 3, 1, [anon_sym_SLASH_SLASH]), (ACTIONS 5, 1,
       [anon_sym_SLASH_STAR]), (ACTIONS 7, 1, [anon_sym_SLASH_SLASH_SLASH]), (ACTIONS 9, 1,
       [sym__block_comment]), (ACTIONS 11, 1, [sym__documentation_block_comment]), (ACTIONS 6935,
       1, [sym_identifier]), (STATE 3419, 2, [sym_comment, sym_documentation_comment])]),
     (150815, 7, [(ACTIONS 3, 1, [anon_sym_SLASH_SLASH]), (ACTIONS 5, 1,
       [anon_sym_SLASH_STAR]), (ACTIONS 7, 1, [anon_sym_SLASH_SLASH_SLASH]), (ACTIONS 9, 1,
       [sym__block_comment]), (ACTIONS 11, 1, [sym__documentation_block_comment]), (ACTIONS 4747,
       1, [anon_sym_RBRACE]), (STATE 3420, 2, [sym_comment, sym_documentation_comment])]),
     (150838, 7, [(ACTIONS 3, 1, [anon_sym_SLASH_SLASH]), (ACTIONS 5, 1,
       [anon_sym_SLASH_STAR]), (ACTIONS 7, 1, [anon_sym_SLASH_SLASH_SLASH]), (ACTIONS 9, 1,
       [sym__block_comment]), (ACTIONS 11, 1, [sym__documentation_block_comment]), (ACTIONS 6937,
       1, [sym_identifier]), (STATE 3421, 2, [sym_comment, sym_documentation_comment])]),
     (150861, 7, [(ACTIONS 3, 1, [anon_sym_SLASH_SLASH]), (ACTIONS 5, 1,
       [anon_sym_SLASH_STAR]), (ACTIONS 7, 1, [anon_sym_SLASH_SLASH_SLASH]), (ACTIONS 9, 1,
       [sym__block_comment]), (ACTIONS 11, 1, [sym__documentation_block_comment]), (ACTIONS 6483,
       1, [anon_sym_EQ]), (STATE 3422, 2, [sym_comment, sym_documentation_comment])])]"

lemma small_run_955: "small_run 3414 150677 ts_small_parse_table_955 3423 150884"
  by (simp add: small_simps ts_small_parse_table_955_def)

definition ts_small_parse_table_956 :: "small_group list" where
  "ts_small_parse_table_956 = [
     (150884, 7, [(ACTIONS 3, 1, [anon_sym_SLASH_SLASH]), (ACTIONS 5, 1,
       [anon_sym_SLASH_STAR]), (ACTIONS 7, 1, [anon_sym_SLASH_SLASH_SLASH]), (ACTIONS 9, 1,
       [sym__block_comment]), (ACTIONS 11, 1, [sym__documentation_block_comment]), (ACTIONS 6939,
       1, [anon_sym_LBRACE]), (STATE 3423, 2, [sym_comment, sym_documentation_comment])]),
     (150907, 7, [(ACTIONS 3, 1, [anon_sym_SLASH_SLASH]), (ACTIONS 5, 1,
       [anon_sym_SLASH_STAR]), (ACTIONS 7, 1, [anon_sym_SLASH_SLASH_SLASH]), (ACTIONS 9, 1,
       [sym__block_comment]), (ACTIONS 11, 1, [sym__documentation_block_comment]), (ACTIONS 6941,
       1, [anon_sym_RPAREN]), (STATE 3424, 2, [sym_comment, sym_documentation_comment])]),
     (150930, 7, [(ACTIONS 3, 1, [anon_sym_SLASH_SLASH]), (ACTIONS 5, 1,
       [anon_sym_SLASH_STAR]), (ACTIONS 7, 1, [anon_sym_SLASH_SLASH_SLASH]), (ACTIONS 9, 1,
       [sym__block_comment]), (ACTIONS 11, 1, [sym__documentation_block_comment]), (ACTIONS 6943,
       1, [sym_identifier]), (STATE 3425, 2, [sym_comment, sym_documentation_comment])]),
     (150953, 7, [(ACTIONS 3, 1, [anon_sym_SLASH_SLASH]), (ACTIONS 5, 1,
       [anon_sym_SLASH_STAR]), (ACTIONS 7, 1, [anon_sym_SLASH_SLASH_SLASH]), (ACTIONS 9, 1,
       [sym__block_comment]), (ACTIONS 11, 1, [sym__documentation_block_comment]), (ACTIONS 6945,
       1, [sym_identifier]), (STATE 3426, 2, [sym_comment, sym_documentation_comment])]),
     (150976, 7, [(ACTIONS 3, 1, [anon_sym_SLASH_SLASH]), (ACTIONS 5, 1,
       [anon_sym_SLASH_STAR]), (ACTIONS 7, 1, [anon_sym_SLASH_SLASH_SLASH]), (ACTIONS 9, 1,
       [sym__block_comment]), (ACTIONS 11, 1, [sym__documentation_block_comment]), (ACTIONS 6615,
       1, [anon_sym_EQ]), (STATE 3427, 2, [sym_comment, sym_documentation_comment])]),
     (150999, 7, [(ACTIONS 3, 1, [anon_sym_SLASH_SLASH]), (ACTIONS 5, 1,
       [anon_sym_SLASH_STAR]), (ACTIONS 7, 1, [anon_sym_SLASH_SLASH_SLASH]), (ACTIONS 9, 1,
       [sym__block_comment]), (ACTIONS 11, 1, [sym__documentation_block_comment]), (ACTIONS 6571,
       1, [anon_sym_SEMI]), (STATE 3428, 2, [sym_comment, sym_documentation_comment])]),
     (151022, 7, [(ACTIONS 3, 1, [anon_sym_SLASH_SLASH]), (ACTIONS 5, 1,
       [anon_sym_SLASH_STAR]), (ACTIONS 7, 1, [anon_sym_SLASH_SLASH_SLASH]), (ACTIONS 9, 1,
       [sym__block_comment]), (ACTIONS 11, 1, [sym__documentation_block_comment]), (ACTIONS 6947,
       1, [anon_sym_LBRACK]), (STATE 3429, 2, [sym_comment, sym_documentation_comment])]),
     (151045, 7, [(ACTIONS 3, 1, [anon_sym_SLASH_SLASH]), (ACTIONS 5, 1,
       [anon_sym_SLASH_STAR]), (ACTIONS 7, 1, [anon_sym_SLASH_SLASH_SLASH]), (ACTIONS 9, 1,
       [sym__block_comment]), (ACTIONS 11, 1, [sym__documentation_block_comment]), (ACTIONS 6949,
       1, [ts_builtin_sym_end]), (STATE 3430, 2, [sym_comment, sym_documentation_comment])]),
     (151068, 7, [(ACTIONS 3, 1, [anon_sym_SLASH_SLASH]), (ACTIONS 5, 1,
       [anon_sym_SLASH_STAR]), (ACTIONS 7, 1, [anon_sym_SLASH_SLASH_SLASH]), (ACTIONS 9, 1,
       [sym__block_comment]), (ACTIONS 11, 1, [sym__documentation_block_comment]), (ACTIONS 6951,
       1, [sym_identifier]), (STATE 3431, 2, [sym_comment, sym_documentation_comment])])]"

lemma small_run_956: "small_run 3423 150884 ts_small_parse_table_956 3432 151091"
  by (simp add: small_simps ts_small_parse_table_956_def)

definition ts_small_parse_table_957 :: "small_group list" where
  "ts_small_parse_table_957 = [
     (151091, 7, [(ACTIONS 3, 1, [anon_sym_SLASH_SLASH]), (ACTIONS 5, 1,
       [anon_sym_SLASH_STAR]), (ACTIONS 7, 1, [anon_sym_SLASH_SLASH_SLASH]), (ACTIONS 9, 1,
       [sym__block_comment]), (ACTIONS 11, 1, [sym__documentation_block_comment]), (ACTIONS 6953,
       1, [anon_sym_SEMI]), (STATE 3432, 2, [sym_comment, sym_documentation_comment])]),
     (151114, 7, [(ACTIONS 3, 1, [anon_sym_SLASH_SLASH]), (ACTIONS 5, 1,
       [anon_sym_SLASH_STAR]), (ACTIONS 7, 1, [anon_sym_SLASH_SLASH_SLASH]), (ACTIONS 9, 1,
       [sym__block_comment]), (ACTIONS 11, 1, [sym__documentation_block_comment]), (ACTIONS 6955,
       1, [anon_sym_LBRACE]), (STATE 3433, 2, [sym_comment, sym_documentation_comment])]),
     (151137, 7, [(ACTIONS 3, 1, [anon_sym_SLASH_SLASH]), (ACTIONS 5, 1,
       [anon_sym_SLASH_STAR]), (ACTIONS 7, 1, [anon_sym_SLASH_SLASH_SLASH]), (ACTIONS 9, 1,
       [sym__block_comment]), (ACTIONS 11, 1, [sym__documentation_block_comment]), (ACTIONS 6163,
       1, [anon_sym_RPAREN]), (STATE 3434, 2, [sym_comment, sym_documentation_comment])]),
     (151160, 7, [(ACTIONS 3, 1, [anon_sym_SLASH_SLASH]), (ACTIONS 5, 1,
       [anon_sym_SLASH_STAR]), (ACTIONS 7, 1, [anon_sym_SLASH_SLASH_SLASH]), (ACTIONS 9, 1,
       [sym__block_comment]), (ACTIONS 11, 1, [sym__documentation_block_comment]), (ACTIONS 6957,
       1, [anon_sym_SEMI]), (STATE 3435, 2, [sym_comment, sym_documentation_comment])]),
     (151183, 7, [(ACTIONS 3, 1, [anon_sym_SLASH_SLASH]), (ACTIONS 5, 1,
       [anon_sym_SLASH_STAR]), (ACTIONS 7, 1, [anon_sym_SLASH_SLASH_SLASH]), (ACTIONS 9, 1,
       [sym__block_comment]), (ACTIONS 11, 1, [sym__documentation_block_comment]), (ACTIONS 6959,
       1, [anon_sym_RPAREN]), (STATE 3436, 2, [sym_comment, sym_documentation_comment])]),
     (151206, 7, [(ACTIONS 3, 1, [anon_sym_SLASH_SLASH]), (ACTIONS 5, 1,
       [anon_sym_SLASH_STAR]), (ACTIONS 7, 1, [anon_sym_SLASH_SLASH_SLASH]), (ACTIONS 9, 1,
       [sym__block_comment]), (ACTIONS 11, 1, [sym__documentation_block_comment]), (ACTIONS 6961,
       1, [anon_sym_RPAREN]), (STATE 3437, 2, [sym_comment, sym_documentation_comment])]),
     (151229, 7, [(ACTIONS 3, 1, [anon_sym_SLASH_SLASH]), (ACTIONS 5, 1,
       [anon_sym_SLASH_STAR]), (ACTIONS 7, 1, [anon_sym_SLASH_SLASH_SLASH]), (ACTIONS 9, 1,
       [sym__block_comment]), (ACTIONS 11, 1, [sym__documentation_block_comment]), (ACTIONS 6963,
       1, [anon_sym_RPAREN]), (STATE 3438, 2, [sym_comment, sym_documentation_comment])]),
     (151252, 7, [(ACTIONS 3, 1, [anon_sym_SLASH_SLASH]), (ACTIONS 5, 1,
       [anon_sym_SLASH_STAR]), (ACTIONS 7, 1, [anon_sym_SLASH_SLASH_SLASH]), (ACTIONS 9, 1,
       [sym__block_comment]), (ACTIONS 11, 1, [sym__documentation_block_comment]), (ACTIONS 6965,
       1, [sym_identifier]), (STATE 3439, 2, [sym_comment, sym_documentation_comment])]),
     (151275, 7, [(ACTIONS 3, 1, [anon_sym_SLASH_SLASH]), (ACTIONS 5, 1,
       [anon_sym_SLASH_STAR]), (ACTIONS 7, 1, [anon_sym_SLASH_SLASH_SLASH]), (ACTIONS 9, 1,
       [sym__block_comment]), (ACTIONS 11, 1, [sym__documentation_block_comment]), (ACTIONS 6967,
       1, [anon_sym_RPAREN]), (STATE 3440, 2, [sym_comment, sym_documentation_comment])])]"

lemma small_run_957: "small_run 3432 151091 ts_small_parse_table_957 3441 151298"
  by (simp add: small_simps ts_small_parse_table_957_def)

definition ts_small_parse_table_958 :: "small_group list" where
  "ts_small_parse_table_958 = [
     (151298, 7, [(ACTIONS 3, 1, [anon_sym_SLASH_SLASH]), (ACTIONS 5, 1,
       [anon_sym_SLASH_STAR]), (ACTIONS 7, 1, [anon_sym_SLASH_SLASH_SLASH]), (ACTIONS 9, 1,
       [sym__block_comment]), (ACTIONS 11, 1, [sym__documentation_block_comment]), (ACTIONS 6969,
       1, [anon_sym_RPAREN]), (STATE 3441, 2, [sym_comment, sym_documentation_comment])]),
     (151321, 7, [(ACTIONS 3, 1, [anon_sym_SLASH_SLASH]), (ACTIONS 5, 1,
       [anon_sym_SLASH_STAR]), (ACTIONS 7, 1, [anon_sym_SLASH_SLASH_SLASH]), (ACTIONS 9, 1,
       [sym__block_comment]), (ACTIONS 11, 1, [sym__documentation_block_comment]), (ACTIONS 6971,
       1, [anon_sym_RBRACE]), (STATE 3442, 2, [sym_comment, sym_documentation_comment])]),
     (151344, 7, [(ACTIONS 3, 1, [anon_sym_SLASH_SLASH]), (ACTIONS 5, 1,
       [anon_sym_SLASH_STAR]), (ACTIONS 7, 1, [anon_sym_SLASH_SLASH_SLASH]), (ACTIONS 9, 1,
       [sym__block_comment]), (ACTIONS 11, 1, [sym__documentation_block_comment]), (ACTIONS 5321,
       1, [sym_identifier]), (STATE 3443, 2, [sym_comment, sym_documentation_comment])]),
     (151367, 7, [(ACTIONS 3, 1, [anon_sym_SLASH_SLASH]), (ACTIONS 5, 1,
       [anon_sym_SLASH_STAR]), (ACTIONS 7, 1, [anon_sym_SLASH_SLASH_SLASH]), (ACTIONS 9, 1,
       [sym__block_comment]), (ACTIONS 11, 1, [sym__documentation_block_comment]), (ACTIONS 6973,
       1, [sym_identifier]), (STATE 3444, 2, [sym_comment, sym_documentation_comment])]),
     (151390, 7, [(ACTIONS 3, 1, [anon_sym_SLASH_SLASH]), (ACTIONS 5, 1,
       [anon_sym_SLASH_STAR]), (ACTIONS 7, 1, [anon_sym_SLASH_SLASH_SLASH]), (ACTIONS 9, 1,
       [sym__block_comment]), (ACTIONS 11, 1, [sym__documentation_block_comment]), (ACTIONS 6975,
       1, [anon_sym_RPAREN]), (STATE 3445, 2, [sym_comment, sym_documentation_comment])]),
     (151413, 7, [(ACTIONS 3, 1, [anon_sym_SLASH_SLASH]), (ACTIONS 5, 1,
       [anon_sym_SLASH_STAR]), (ACTIONS 7, 1, [anon_sym_SLASH_SLASH_SLASH]), (ACTIONS 9, 1,
       [sym__block_comment]), (ACTIONS 11, 1, [sym__documentation_block_comment]), (ACTIONS 6977,
       1, [anon_sym_RPAREN]), (STATE 3446, 2, [sym_comment, sym_documentation_comment])]),
     (151436, 7, [(ACTIONS 3, 1, [anon_sym_SLASH_SLASH]), (ACTIONS 5, 1,
       [anon_sym_SLASH_STAR]), (ACTIONS 7, 1, [anon_sym_SLASH_SLASH_SLASH]), (ACTIONS 9, 1,
       [sym__block_comment]), (ACTIONS 11, 1, [sym__documentation_block_comment]), (ACTIONS 6216,
       1, [anon_sym_RPAREN]), (STATE 3447, 2, [sym_comment, sym_documentation_comment])]),
     (151459, 7, [(ACTIONS 3, 1, [anon_sym_SLASH_SLASH]), (ACTIONS 5, 1,
       [anon_sym_SLASH_STAR]), (ACTIONS 7, 1, [anon_sym_SLASH_SLASH_SLASH]), (ACTIONS 9, 1,
       [sym__block_comment]), (ACTIONS 11, 1, [sym__documentation_block_comment]), (ACTIONS 6979,
       1, [sym_identifier]), (STATE 3448, 2, [sym_comment, sym_documentation_comment])]),
     (151482, 7, [(ACTIONS 3, 1, [anon_sym_SLASH_SLASH]), (ACTIONS 5, 1,
       [anon_sym_SLASH_STAR]), (ACTIONS 7, 1, [anon_sym_SLASH_SLASH_SLASH]), (ACTIONS 9, 1,
       [sym__block_comment]), (ACTIONS 11, 1, [sym__documentation_block_comment]), (ACTIONS 6981,
       1, [anon_sym_RBRACK]), (STATE 3449, 2, [sym_comment, sym_documentation_comment])])]"

lemma small_run_958: "small_run 3441 151298 ts_small_parse_table_958 3450 151505"
  by (simp add: small_simps ts_small_parse_table_958_def)

definition ts_small_parse_table_959 :: "small_group list" where
  "ts_small_parse_table_959 = [
     (151505, 7, [(ACTIONS 3, 1, [anon_sym_SLASH_SLASH]), (ACTIONS 5, 1,
       [anon_sym_SLASH_STAR]), (ACTIONS 7, 1, [anon_sym_SLASH_SLASH_SLASH]), (ACTIONS 9, 1,
       [sym__block_comment]), (ACTIONS 11, 1, [sym__documentation_block_comment]), (ACTIONS 6983,
       1, [anon_sym_while]), (STATE 3450, 2, [sym_comment, sym_documentation_comment])]),
     (151528, 7, [(ACTIONS 3, 1, [anon_sym_SLASH_SLASH]), (ACTIONS 5, 1,
       [anon_sym_SLASH_STAR]), (ACTIONS 7, 1, [anon_sym_SLASH_SLASH_SLASH]), (ACTIONS 9, 1,
       [sym__block_comment]), (ACTIONS 11, 1, [sym__documentation_block_comment]), (ACTIONS 6985,
       1, [anon_sym_RPAREN]), (STATE 3451, 2, [sym_comment, sym_documentation_comment])]),
     (151551, 7, [(ACTIONS 3, 1, [anon_sym_SLASH_SLASH]), (ACTIONS 5, 1,
       [anon_sym_SLASH_STAR]), (ACTIONS 7, 1, [anon_sym_SLASH_SLASH_SLASH]), (ACTIONS 9, 1,
       [sym__block_comment]), (ACTIONS 11, 1, [sym__documentation_block_comment]), (ACTIONS 6987,
       1, [anon_sym_RPAREN]), (STATE 3452, 2, [sym_comment, sym_documentation_comment])]),
     (151574, 7, [(ACTIONS 3, 1, [anon_sym_SLASH_SLASH]), (ACTIONS 5, 1,
       [anon_sym_SLASH_STAR]), (ACTIONS 7, 1, [anon_sym_SLASH_SLASH_SLASH]), (ACTIONS 9, 1,
       [sym__block_comment]), (ACTIONS 11, 1, [sym__documentation_block_comment]), (ACTIONS 6989,
       1, [anon_sym_on]), (STATE 3453, 2, [sym_comment, sym_documentation_comment])]),
     (151597, 7, [(ACTIONS 3, 1, [anon_sym_SLASH_SLASH]), (ACTIONS 5, 1,
       [anon_sym_SLASH_STAR]), (ACTIONS 7, 1, [anon_sym_SLASH_SLASH_SLASH]), (ACTIONS 9, 1,
       [sym__block_comment]), (ACTIONS 11, 1, [sym__documentation_block_comment]), (ACTIONS 4608,
       1, [anon_sym_DOT]), (STATE 3454, 2, [sym_comment, sym_documentation_comment])]),
     (151620, 7, [(ACTIONS 3, 1, [anon_sym_SLASH_SLASH]), (ACTIONS 5, 1,
       [anon_sym_SLASH_STAR]), (ACTIONS 7, 1, [anon_sym_SLASH_SLASH_SLASH]), (ACTIONS 9, 1,
       [sym__block_comment]), (ACTIONS 11, 1, [sym__documentation_block_comment]), (ACTIONS 6591,
       1, [anon_sym_COMMA]), (STATE 3455, 2, [sym_comment, sym_documentation_comment])]),
     (151643, 7, [(ACTIONS 3, 1, [anon_sym_SLASH_SLASH]), (ACTIONS 5, 1,
       [anon_sym_SLASH_STAR]), (ACTIONS 7, 1, [anon_sym_SLASH_SLASH_SLASH]), (ACTIONS 9, 1,
       [sym__block_comment]), (ACTIONS 11, 1, [sym__documentation_block_comment]), (ACTIONS 6991,
       1, [anon_sym_RPAREN]), (STATE 3456, 2, [sym_comment, sym_documentation_comment])]),
     (151666, 7, [(ACTIONS 3, 1, [anon_sym_SLASH_SLASH]), (ACTIONS 5, 1,
       [anon_sym_SLASH_STAR]), (ACTIONS 7, 1, [anon_sym_SLASH_SLASH_SLASH]), (ACTIONS 9, 1,
       [sym__block_comment]), (ACTIONS 11, 1, [sym__documentation_block_comment]), (ACTIONS 6993,
       1, [sym_identifier]), (STATE 3457, 2, [sym_comment, sym_documentation_comment])]),
     (151689, 7, [(ACTIONS 3, 1, [anon_sym_SLASH_SLASH]), (ACTIONS 5, 1,
       [anon_sym_SLASH_STAR]), (ACTIONS 7, 1, [anon_sym_SLASH_SLASH_SLASH]), (ACTIONS 9, 1,
       [sym__block_comment]), (ACTIONS 11, 1, [sym__documentation_block_comment]), (ACTIONS 6995,
       1, [anon_sym_DOT]), (STATE 3458, 2, [sym_comment, sym_documentation_comment])])]"

lemma small_run_959: "small_run 3450 151505 ts_small_parse_table_959 3459 151712"
  by (simp add: small_simps ts_small_parse_table_959_def)

definition ts_small_parse_table_960 :: "small_group list" where
  "ts_small_parse_table_960 = [
     (151712, 7, [(ACTIONS 3, 1, [anon_sym_SLASH_SLASH]), (ACTIONS 9, 1, [sym__block_comment]),
       (ACTIONS 11, 1, [sym__documentation_block_comment]), (ACTIONS 5165, 1,
       [anon_sym_SLASH_STAR]), (ACTIONS 5167, 1, [anon_sym_SLASH_SLASH_SLASH]), (ACTIONS 6997, 1,
       [anon_sym_LF]), (STATE 3459, 2, [sym_comment, sym_documentation_comment])]),
     (151735, 7, [(ACTIONS 3, 1, [anon_sym_SLASH_SLASH]), (ACTIONS 5, 1,
       [anon_sym_SLASH_STAR]), (ACTIONS 7, 1, [anon_sym_SLASH_SLASH_SLASH]), (ACTIONS 9, 1,
       [sym__block_comment]), (ACTIONS 11, 1, [sym__documentation_block_comment]), (ACTIONS 6999,
       1, [anon_sym_RPAREN]), (STATE 3460, 2, [sym_comment, sym_documentation_comment])]),
     (151758, 7, [(ACTIONS 3, 1, [anon_sym_SLASH_SLASH]), (ACTIONS 5, 1,
       [anon_sym_SLASH_STAR]), (ACTIONS 7, 1, [anon_sym_SLASH_SLASH_SLASH]), (ACTIONS 9, 1,
       [sym__block_comment]), (ACTIONS 11, 1, [sym__documentation_block_comment]), (ACTIONS 7001,
       1, [anon_sym_SEMI]), (STATE 3461, 2, [sym_comment, sym_documentation_comment])]),
     (151781, 7, [(ACTIONS 3, 1, [anon_sym_SLASH_SLASH]), (ACTIONS 5, 1,
       [anon_sym_SLASH_STAR]), (ACTIONS 7, 1, [anon_sym_SLASH_SLASH_SLASH]), (ACTIONS 9, 1,
       [sym__block_comment]), (ACTIONS 11, 1, [sym__documentation_block_comment]), (ACTIONS 7003,
       1, [anon_sym_COLON]), (STATE 3462, 2, [sym_comment, sym_documentation_comment])]),
     (151804, 7, [(ACTIONS 3, 1, [anon_sym_SLASH_SLASH]), (ACTIONS 5, 1,
       [anon_sym_SLASH_STAR]), (ACTIONS 7, 1, [anon_sym_SLASH_SLASH_SLASH]), (ACTIONS 9, 1,
       [sym__block_comment]), (ACTIONS 11, 1, [sym__documentation_block_comment]), (ACTIONS 7005,
       1, [anon_sym_RBRACE]), (STATE 3463, 2, [sym_comment, sym_documentation_comment])]),
     (151827, 7, [(ACTIONS 3, 1, [anon_sym_SLASH_SLASH]), (ACTIONS 5, 1,
       [anon_sym_SLASH_STAR]), (ACTIONS 7, 1, [anon_sym_SLASH_SLASH_SLASH]), (ACTIONS 9, 1,
       [sym__block_comment]), (ACTIONS 11, 1, [sym__documentation_block_comment]), (ACTIONS 1502,
       1, [anon_sym_COLON]), (STATE 3464, 2, [sym_comment, sym_documentation_comment])]),
     (151850, 7, [(ACTIONS 3, 1, [anon_sym_SLASH_SLASH]), (ACTIONS 5, 1,
       [anon_sym_SLASH_STAR]), (ACTIONS 7, 1, [anon_sym_SLASH_SLASH_SLASH]), (ACTIONS 9, 1,
       [sym__block_comment]), (ACTIONS 11, 1, [sym__documentation_block_comment]), (ACTIONS 3783,
       1, [anon_sym_RPAREN]), (STATE 3465, 2, [sym_comment, sym_documentation_comment])]),
     (151873, 7, [(ACTIONS 3, 1, [anon_sym_SLASH_SLASH]), (ACTIONS 5, 1,
       [anon_sym_SLASH_STAR]), (ACTIONS 7, 1, [anon_sym_SLASH_SLASH_SLASH]), (ACTIONS 9, 1,
       [sym__block_comment]), (ACTIONS 11, 1, [sym__documentation_block_comment]), (ACTIONS 7007,
       1, [anon_sym_RBRACK]), (STATE 3466, 2, [sym_comment, sym_documentation_comment])]),
     (151896, 7, [(ACTIONS 3, 1, [anon_sym_SLASH_SLASH]), (ACTIONS 5, 1,
       [anon_sym_SLASH_STAR]), (ACTIONS 7, 1, [anon_sym_SLASH_SLASH_SLASH]), (ACTIONS 9, 1,
       [sym__block_comment]), (ACTIONS 11, 1, [sym__documentation_block_comment]), (ACTIONS 7009,
       1, [anon_sym_COLON]), (STATE 3467, 2, [sym_comment, sym_documentation_comment])])]"

lemma small_run_960: "small_run 3459 151712 ts_small_parse_table_960 3468 151919"
  by (simp add: small_simps ts_small_parse_table_960_def)

definition ts_small_parse_table_961 :: "small_group list" where
  "ts_small_parse_table_961 = [
     (151919, 7, [(ACTIONS 3, 1, [anon_sym_SLASH_SLASH]), (ACTIONS 5, 1,
       [anon_sym_SLASH_STAR]), (ACTIONS 7, 1, [anon_sym_SLASH_SLASH_SLASH]), (ACTIONS 9, 1,
       [sym__block_comment]), (ACTIONS 11, 1, [sym__documentation_block_comment]), (ACTIONS 7011,
       1, [anon_sym_COLON]), (STATE 3468, 2, [sym_comment, sym_documentation_comment])]),
     (151942, 7, [(ACTIONS 3, 1, [anon_sym_SLASH_SLASH]), (ACTIONS 5, 1,
       [anon_sym_SLASH_STAR]), (ACTIONS 7, 1, [anon_sym_SLASH_SLASH_SLASH]), (ACTIONS 9, 1,
       [sym__block_comment]), (ACTIONS 11, 1, [sym__documentation_block_comment]), (ACTIONS 7013,
       1, [sym_identifier]), (STATE 3469, 2, [sym_comment, sym_documentation_comment])]),
     (151965, 7, [(ACTIONS 3, 1, [anon_sym_SLASH_SLASH]), (ACTIONS 5, 1,
       [anon_sym_SLASH_STAR]), (ACTIONS 7, 1, [anon_sym_SLASH_SLASH_SLASH]), (ACTIONS 9, 1,
       [sym__block_comment]), (ACTIONS 11, 1, [sym__documentation_block_comment]), (ACTIONS 5928,
       1, [anon_sym_RPAREN]), (STATE 3470, 2, [sym_comment, sym_documentation_comment])]),
     (151988, 7, [(ACTIONS 3, 1, [anon_sym_SLASH_SLASH]), (ACTIONS 5, 1,
       [anon_sym_SLASH_STAR]), (ACTIONS 7, 1, [anon_sym_SLASH_SLASH_SLASH]), (ACTIONS 9, 1,
       [sym__block_comment]), (ACTIONS 11, 1, [sym__documentation_block_comment]), (ACTIONS 7015,
       1, [anon_sym_COLON]), (STATE 3471, 2, [sym_comment, sym_documentation_comment])]),
     (152011, 7, [(ACTIONS 3, 1, [anon_sym_SLASH_SLASH]), (ACTIONS 5, 1,
       [anon_sym_SLASH_STAR]), (ACTIONS 7, 1, [anon_sym_SLASH_SLASH_SLASH]), (ACTIONS 9, 1,
       [sym__block_comment]), (ACTIONS 11, 1, [sym__documentation_block_comment]), (ACTIONS 7017,
       1, [anon_sym_RPAREN]), (STATE 3472, 2, [sym_comment, sym_documentation_comment])]),
     (152034, 7, [(ACTIONS 3, 1, [anon_sym_SLASH_SLASH]), (ACTIONS 5, 1,
       [anon_sym_SLASH_STAR]), (ACTIONS 7, 1, [anon_sym_SLASH_SLASH_SLASH]), (ACTIONS 9, 1,
       [sym__block_comment]), (ACTIONS 11, 1, [sym__documentation_block_comment]), (ACTIONS 7019,
       1, [anon_sym_DOT]), (STATE 3473, 2, [sym_comment, sym_documentation_comment])]),
     (152057, 7, [(ACTIONS 3, 1, [anon_sym_SLASH_SLASH]), (ACTIONS 5, 1,
       [anon_sym_SLASH_STAR]), (ACTIONS 7, 1, [anon_sym_SLASH_SLASH_SLASH]), (ACTIONS 9, 1,
       [sym__block_comment]), (ACTIONS 11, 1, [sym__documentation_block_comment]), (ACTIONS 7021,
       1, [anon_sym_class]), (STATE 3474, 2, [sym_comment, sym_documentation_comment])]),
     (152080, 7, [(ACTIONS 3, 1, [anon_sym_SLASH_SLASH]), (ACTIONS 5, 1,
       [anon_sym_SLASH_STAR]), (ACTIONS 7, 1, [anon_sym_SLASH_SLASH_SLASH]), (ACTIONS 9, 1,
       [sym__block_comment]), (ACTIONS 11, 1, [sym__documentation_block_comment]), (ACTIONS 6476,
       1, [anon_sym_COMMA]), (STATE 3475, 2, [sym_comment, sym_documentation_comment])]),
     (152103, 7, [(ACTIONS 3, 1, [anon_sym_SLASH_SLASH]), (ACTIONS 5, 1,
       [anon_sym_SLASH_STAR]), (ACTIONS 7, 1, [anon_sym_SLASH_SLASH_SLASH]), (ACTIONS 9, 1,
       [sym__block_comment]), (ACTIONS 11, 1, [sym__documentation_block_comment]), (ACTIONS 7023,
       1, [anon_sym_DOT]), (STATE 3476, 2, [sym_comment, sym_documentation_comment])])]"

lemma small_run_961: "small_run 3468 151919 ts_small_parse_table_961 3477 152126"
  by (simp add: small_simps ts_small_parse_table_961_def)

definition ts_small_parse_table_962 :: "small_group list" where
  "ts_small_parse_table_962 = [
     (152126, 7, [(ACTIONS 3, 1, [anon_sym_SLASH_SLASH]), (ACTIONS 5, 1,
       [anon_sym_SLASH_STAR]), (ACTIONS 7, 1, [anon_sym_SLASH_SLASH_SLASH]), (ACTIONS 9, 1,
       [sym__block_comment]), (ACTIONS 11, 1, [sym__documentation_block_comment]), (ACTIONS 7025,
       1, [anon_sym_RBRACK]), (STATE 3477, 2, [sym_comment, sym_documentation_comment])]),
     (152149, 7, [(ACTIONS 3, 1, [anon_sym_SLASH_SLASH]), (ACTIONS 5, 1,
       [anon_sym_SLASH_STAR]), (ACTIONS 7, 1, [anon_sym_SLASH_SLASH_SLASH]), (ACTIONS 9, 1,
       [sym__block_comment]), (ACTIONS 11, 1, [sym__documentation_block_comment]), (ACTIONS 7027,
       1, [sym_identifier]), (STATE 3478, 2, [sym_comment, sym_documentation_comment])]),
     (152172, 7, [(ACTIONS 3, 1, [anon_sym_SLASH_SLASH]), (ACTIONS 5, 1,
       [anon_sym_SLASH_STAR]), (ACTIONS 7, 1, [anon_sym_SLASH_SLASH_SLASH]), (ACTIONS 9, 1,
       [sym__block_comment]), (ACTIONS 11, 1, [sym__documentation_block_comment]), (ACTIONS 7029,
       1, [anon_sym_class]), (STATE 3479, 2, [sym_comment, sym_documentation_comment])]),
     (152195, 7, [(ACTIONS 3, 1, [anon_sym_SLASH_SLASH]), (ACTIONS 5, 1,
       [anon_sym_SLASH_STAR]), (ACTIONS 7, 1, [anon_sym_SLASH_SLASH_SLASH]), (ACTIONS 9, 1,
       [sym__block_comment]), (ACTIONS 11, 1, [sym__documentation_block_comment]), (ACTIONS 6249,
       1, [anon_sym_RPAREN]), (STATE 3480, 2, [sym_comment, sym_documentation_comment])]),
     (152218, 7, [(ACTIONS 3, 1, [anon_sym_SLASH_SLASH]), (ACTIONS 5, 1,
       [anon_sym_SLASH_STAR]), (ACTIONS 7, 1, [anon_sym_SLASH_SLASH_SLASH]), (ACTIONS 9, 1,
       [sym__block_comment]), (ACTIONS 11, 1, [sym__documentation_block_comment]), (ACTIONS 7031,
       1, [anon_sym_LPAREN]), (STATE 3481, 2, [sym_comment, sym_documentation_comment])]),
     (152241, 7, [(ACTIONS 3, 1, [anon_sym_SLASH_SLASH]), (ACTIONS 5, 1,
       [anon_sym_SLASH_STAR]), (ACTIONS 7, 1, [anon_sym_SLASH_SLASH_SLASH]), (ACTIONS 9, 1,
       [sym__block_comment]), (ACTIONS 11, 1, [sym__documentation_block_comment]), (ACTIONS 7033,
       1, [anon_sym_as]), (STATE 3482, 2, [sym_comment, sym_documentation_comment])]),
     (152264, 7, [(ACTIONS 3, 1, [anon_sym_SLASH_SLASH]), (ACTIONS 5, 1,
       [anon_sym_SLASH_STAR]), (ACTIONS 7, 1, [anon_sym_SLASH_SLASH_SLASH]), (ACTIONS 9, 1,
       [sym__block_comment]), (ACTIONS 11, 1, [sym__documentation_block_comment]), (ACTIONS 7035,
       1, [anon_sym_LPAREN]), (STATE 3483, 2, [sym_comment, sym_documentation_comment])]),
     (152287, 7, [(ACTIONS 3, 1, [anon_sym_SLASH_SLASH]), (ACTIONS 5, 1,
       [anon_sym_SLASH_STAR]), (ACTIONS 7, 1, [anon_sym_SLASH_SLASH_SLASH]), (ACTIONS 9, 1,
       [sym__block_comment]), (ACTIONS 11, 1, [sym__documentation_block_comment]), (ACTIONS 3757,
       1, [anon_sym_RPAREN]), (STATE 3484, 2, [sym_comment, sym_documentation_comment])]),
     (152310, 7, [(ACTIONS 3, 1, [anon_sym_SLASH_SLASH]), (ACTIONS 5, 1,
       [anon_sym_SLASH_STAR]), (ACTIONS 7, 1, [anon_sym_SLASH_SLASH_SLASH]), (ACTIONS 9, 1,
       [sym__block_comment]), (ACTIONS 11, 1, [sym__documentation_block_comment]), (ACTIONS 7037,
       1, [sym_identifier]), (STATE 3485, 2, [sym_comment, sym_documentation_comment])])]"

lemma small_run_962: "small_run 3477 152126 ts_small_parse_table_962 3486 152333"
  by (simp add: small_simps ts_small_parse_table_962_def)

definition ts_small_parse_table_963 :: "small_group list" where
  "ts_small_parse_table_963 = [
     (152333, 7, [(ACTIONS 3, 1, [anon_sym_SLASH_SLASH]), (ACTIONS 5, 1,
       [anon_sym_SLASH_STAR]), (ACTIONS 7, 1, [anon_sym_SLASH_SLASH_SLASH]), (ACTIONS 9, 1,
       [sym__block_comment]), (ACTIONS 11, 1, [sym__documentation_block_comment]), (ACTIONS 7039,
       1, [sym_identifier]), (STATE 3486, 2, [sym_comment, sym_documentation_comment])]),
     (152356, 7, [(ACTIONS 3, 1, [anon_sym_SLASH_SLASH]), (ACTIONS 5, 1,
       [anon_sym_SLASH_STAR]), (ACTIONS 7, 1, [anon_sym_SLASH_SLASH_SLASH]), (ACTIONS 9, 1,
       [sym__block_comment]), (ACTIONS 11, 1, [sym__documentation_block_comment]), (ACTIONS 6530,
       1, [anon_sym_RPAREN]), (STATE 3487, 2, [sym_comment, sym_documentation_comment])]),
     (152379, 7, [(ACTIONS 3, 1, [anon_sym_SLASH_SLASH]), (ACTIONS 5, 1,
       [anon_sym_SLASH_STAR]), (ACTIONS 7, 1, [anon_sym_SLASH_SLASH_SLASH]), (ACTIONS 9, 1,
       [sym__block_comment]), (ACTIONS 11, 1, [sym__documentation_block_comment]), (ACTIONS 7041,
       1, [sym_identifier]), (STATE 3488, 2, [sym_comment, sym_documentation_comment])]),
     (152402, 7, [(ACTIONS 3, 1, [anon_sym_SLASH_SLASH]), (ACTIONS 5, 1,
       [anon_sym_SLASH_STAR]), (ACTIONS 7, 1, [anon_sym_SLASH_SLASH_SLASH]), (ACTIONS 9, 1,
       [sym__block_comment]), (ACTIONS 11, 1, [sym__documentation_block_comment]), (ACTIONS 7043,
       1, [anon_sym_RPAREN]), (STATE 3489, 2, [sym_comment, sym_documentation_comment])]),
     (152425, 7, [(ACTIONS 3, 1, [anon_sym_SLASH_SLASH]), (ACTIONS 5, 1,
       [anon_sym_SLASH_STAR]), (ACTIONS 7, 1, [anon_sym_SLASH_SLASH_SLASH]), (ACTIONS 9, 1,
       [sym__block_comment]), (ACTIONS 11, 1, [sym__documentation_block_comment]), (ACTIONS 7045,
       1, [sym_identifier]), (STATE 3490, 2, [sym_comment, sym_documentation_comment])]),
     (152448, 7, [(ACTIONS 3, 1, [anon_sym_SLASH_SLASH]), (ACTIONS 5, 1,
       [anon_sym_SLASH_STAR]), (ACTIONS 7, 1, [anon_sym_SLASH_SLASH_SLASH]), (ACTIONS 9, 1,
       [sym__block_comment]), (ACTIONS 11, 1, [sym__documentation_block_comment]), (ACTIONS 7047,
       1, [anon_sym_EQ]), (STATE 3491, 2, [sym_comment, sym_documentation_comment])]),
     (152471, 7, [(ACTIONS 3, 1, [anon_sym_SLASH_SLASH]), (ACTIONS 5, 1,
       [anon_sym_SLASH_STAR]), (ACTIONS 7, 1, [anon_sym_SLASH_SLASH_SLASH]), (ACTIONS 9, 1,
       [sym__block_comment]), (ACTIONS 11, 1, [sym__documentation_block_comment]), (ACTIONS 7049,
       1, [anon_sym_RBRACE]), (STATE 3492, 2, [sym_comment, sym_documentation_comment])]),
     (152494, 7, [(ACTIONS 3, 1, [anon_sym_SLASH_SLASH]), (ACTIONS 5, 1,
       [anon_sym_SLASH_STAR]), (ACTIONS 7, 1, [anon_sym_SLASH_SLASH_SLASH]), (ACTIONS 9, 1,
       [sym__block_comment]), (ACTIONS 11, 1, [sym__documentation_block_comment]), (ACTIONS 7051,
       1, [anon_sym_class]), (STATE 3493, 2, [sym_comment, sym_documentation_comment])]),
     (152517, 7, [(ACTIONS 3, 1, [anon_sym_SLASH_SLASH]), (ACTIONS 5, 1,
       [anon_sym_SLASH_STAR]), (ACTIONS 7, 1, [anon_sym_SLASH_SLASH_SLASH]), (ACTIONS 9, 1,
       [sym__block_comment]), (ACTIONS 11, 1, [sym__documentation_block_comment]), (ACTIONS 7053,
       1, [anon_sym_RPAREN]), (STATE 3494, 2, [sym_comment, sym_documentation_comment])])]"

lemma small_run_963: "small_run 3486 152333 ts_small_parse_table_963 3495 152540"
  by (simp add: small_simps ts_small_parse_table_963_def)

definition ts_small_parse_table_964 :: "small_group list" where
  "ts_small_parse_table_964 = [
     (152540, 7, [(ACTIONS 3, 1, [anon_sym_SLASH_SLASH]), (ACTIONS 5, 1,
       [anon_sym_SLASH_STAR]), (ACTIONS 7, 1, [anon_sym_SLASH_SLASH_SLASH]), (ACTIONS 9, 1,
       [sym__block_comment]), (ACTIONS 11, 1, [sym__documentation_block_comment]), (ACTIONS 5674,
       1, [sym_identifier]), (STATE 3495, 2, [sym_comment, sym_documentation_comment])]),
     (152563, 7, [(ACTIONS 3, 1, [anon_sym_SLASH_SLASH]), (ACTIONS 5, 1,
       [anon_sym_SLASH_STAR]), (ACTIONS 7, 1, [anon_sym_SLASH_SLASH_SLASH]), (ACTIONS 9, 1,
       [sym__block_comment]), (ACTIONS 11, 1, [sym__documentation_block_comment]), (ACTIONS 6098,
       1, [anon_sym_RPAREN]), (STATE 3496, 2, [sym_comment, sym_documentation_comment])]),
     (152586, 7, [(ACTIONS 3, 1, [anon_sym_SLASH_SLASH]), (ACTIONS 5, 1,
       [anon_sym_SLASH_STAR]), (ACTIONS 7, 1, [anon_sym_SLASH_SLASH_SLASH]), (ACTIONS 9, 1,
       [sym__block_comment]), (ACTIONS 11, 1, [sym__documentation_block_comment]), (ACTIONS 7055,
       1, [anon_sym_LPAREN]), (STATE 3497, 2, [sym_comment, sym_documentation_comment])]),
     (152609, 7, [(ACTIONS 3, 1, [anon_sym_SLASH_SLASH]), (ACTIONS 5, 1,
       [anon_sym_SLASH_STAR]), (ACTIONS 7, 1, [anon_sym_SLASH_SLASH_SLASH]), (ACTIONS 9, 1,
       [sym__block_comment]), (ACTIONS 11, 1, [sym__documentation_block_comment]), (ACTIONS 7057,
       1, [anon_sym_LPAREN]), (STATE 3498, 2, [sym_comment, sym_documentation_comment])]),
     (152632, 7, [(ACTIONS 3, 1, [anon_sym_SLASH_SLASH]), (ACTIONS 5, 1,
       [anon_sym_SLASH_STAR]), (ACTIONS 7, 1, [anon_sym_SLASH_SLASH_SLASH]), (ACTIONS 9, 1,
       [sym__block_comment]), (ACTIONS 11, 1, [sym__documentation_block_comment]), (ACTIONS 7059,
       1, [sym_identifier]), (STATE 3499, 2, [sym_comment, sym_documentation_comment])]),
     (152655, 7, [(ACTIONS 3, 1, [anon_sym_SLASH_SLASH]), (ACTIONS 5, 1,
       [anon_sym_SLASH_STAR]), (ACTIONS 7, 1, [anon_sym_SLASH_SLASH_SLASH]), (ACTIONS 9, 1,
       [sym__block_comment]), (ACTIONS 11, 1, [sym__documentation_block_comment]), (ACTIONS 7061,
       1, [sym_identifier]), (STATE 3500, 2, [sym_comment, sym_documentation_comment])]),
     (152678, 7, [(ACTIONS 3, 1, [anon_sym_SLASH_SLASH]), (ACTIONS 5, 1,
       [anon_sym_SLASH_STAR]), (ACTIONS 7, 1, [anon_sym_SLASH_SLASH_SLASH]), (ACTIONS 9, 1,
       [sym__block_comment]), (ACTIONS 11, 1, [sym__documentation_block_comment]), (ACTIONS 7063,
       1, [sym_identifier]), (STATE 3501, 2, [sym_comment, sym_documentation_comment])]),
     (152701, 7, [(ACTIONS 3, 1, [anon_sym_SLASH_SLASH]), (ACTIONS 5, 1,
       [anon_sym_SLASH_STAR]), (ACTIONS 7, 1, [anon_sym_SLASH_SLASH_SLASH]), (ACTIONS 9, 1,
       [sym__block_comment]), (ACTIONS 11, 1, [sym__documentation_block_comment]), (ACTIONS 7065,
       1, [anon_sym_SEMI]), (STATE 3502, 2, [sym_comment, sym_documentation_comment])]),
     (152724, 7, [(ACTIONS 3, 1, [anon_sym_SLASH_SLASH]), (ACTIONS 5, 1,
       [anon_sym_SLASH_STAR]), (ACTIONS 7, 1, [anon_sym_SLASH_SLASH_SLASH]), (ACTIONS 9, 1,
       [sym__block_comment]), (ACTIONS 11, 1, [sym__documentation_block_comment]), (ACTIONS 5130,
       1, [anon_sym_SEMI]), (STATE 3503, 2, [sym_comment, sym_documentation_comment])])]"

lemma small_run_964: "small_run 3495 152540 ts_small_parse_table_964 3504 152747"
  by (simp add: small_simps ts_small_parse_table_964_def)

definition ts_small_parse_table_965 :: "small_group list" where
  "ts_small_parse_table_965 = [
     (152747, 7, [(ACTIONS 3, 1, [anon_sym_SLASH_SLASH]), (ACTIONS 9, 1, [sym__block_comment]),
       (ACTIONS 11, 1, [sym__documentation_block_comment]), (ACTIONS 5165, 1,
       [anon_sym_SLASH_STAR]), (ACTIONS 5167, 1, [anon_sym_SLASH_SLASH_SLASH]), (ACTIONS 7067, 1,
       [aux_sym_script_tag_token1]), (STATE 3504, 2, [sym_comment, sym_documentation_comment])]),
     (152770, 7, [(ACTIONS 3, 1, [anon_sym_SLASH_SLASH]), (ACTIONS 5, 1,
       [anon_sym_SLASH_STAR]), (ACTIONS 7, 1, [anon_sym_SLASH_SLASH_SLASH]), (ACTIONS 9, 1,
       [sym__block_comment]), (ACTIONS 11, 1, [sym__documentation_block_comment]), (ACTIONS 7069,
       1, [anon_sym_SEMI]), (STATE 3505, 2, [sym_comment, sym_documentation_comment])]),
     (152793, 7, [(ACTIONS 3, 1, [anon_sym_SLASH_SLASH]), (ACTIONS 5, 1,
       [anon_sym_SLASH_STAR]), (ACTIONS 7, 1, [anon_sym_SLASH_SLASH_SLASH]), (ACTIONS 9, 1,
       [sym__block_comment]), (ACTIONS 11, 1, [sym__documentation_block_comment]), (ACTIONS 7071,
       1, [anon_sym_RPAREN]), (STATE 3506, 2, [sym_comment, sym_documentation_comment])]),
     (152816, 7, [(ACTIONS 3, 1, [anon_sym_SLASH_SLASH]), (ACTIONS 5, 1,
       [anon_sym_SLASH_STAR]), (ACTIONS 7, 1, [anon_sym_SLASH_SLASH_SLASH]), (ACTIONS 9, 1,
       [sym__block_comment]), (ACTIONS 11, 1, [sym__documentation_block_comment]), (ACTIONS 7073,
       1, [anon_sym_RPAREN]), (STATE 3507, 2, [sym_comment, sym_documentation_comment])]),
     (152839, 7, [(ACTIONS 3, 1, [anon_sym_SLASH_SLASH]), (ACTIONS 5, 1,
       [anon_sym_SLASH_STAR]), (ACTIONS 7, 1, [anon_sym_SLASH_SLASH_SLASH]), (ACTIONS 9, 1,
       [sym__block_comment]), (ACTIONS 11, 1, [sym__documentation_block_comment]), (ACTIONS 7075,
       1, [anon_sym_part]), (STATE 3508, 2, [sym_comment, sym_documentation_comment])]),
     (152862, 7, [(ACTIONS 3, 1, [anon_sym_SLASH_SLASH]), (ACTIONS 5, 1,
       [anon_sym_SLASH_STAR]), (ACTIONS 7, 1, [anon_sym_SLASH_SLASH_SLASH]), (ACTIONS 9, 1,
       [sym__block_comment]), (ACTIONS 11, 1, [sym__documentation_block_comment]), (ACTIONS 1635,
       1, [sym_part_of_builtin]), (STATE 3509, 2, [sym_comment, sym_documentation_comment])]),
     (152885, 7, [(ACTIONS 3, 1, [anon_sym_SLASH_SLASH]), (ACTIONS 5, 1,
       [anon_sym_SLASH_STAR]), (ACTIONS 7, 1, [anon_sym_SLASH_SLASH_SLASH]), (ACTIONS 9, 1,
       [sym__block_comment]), (ACTIONS 11, 1, [sym__documentation_block_comment]), (ACTIONS 7077,
       1, [anon_sym_RPAREN]), (STATE 3510, 2, [sym_comment, sym_documentation_comment])]),
     (152908, 7, [(ACTIONS 3, 1, [anon_sym_SLASH_SLASH]), (ACTIONS 5, 1,
       [anon_sym_SLASH_STAR]), (ACTIONS 7, 1, [anon_sym_SLASH_SLASH_SLASH]), (ACTIONS 9, 1,
       [sym__block_comment]), (ACTIONS 11, 1, [sym__documentation_block_comment]), (ACTIONS 7079,
       1, [anon_sym_on]), (STATE 3511, 2, [sym_comment, sym_documentation_comment])]),
     (152931, 7, [(ACTIONS 3, 1, [anon_sym_SLASH_SLASH]), (ACTIONS 5, 1,
       [anon_sym_SLASH_STAR]), (ACTIONS 7, 1, [anon_sym_SLASH_SLASH_SLASH]), (ACTIONS 9, 1,
       [sym__block_comment]), (ACTIONS 11, 1, [sym__documentation_block_comment]), (ACTIONS 7081,
       1, [anon_sym_RPAREN]), (STATE 3512, 2, [sym_comment, sym_documentation_comment])])]"

lemma small_run_965: "small_run 3504 152747 ts_small_parse_table_965 3513 152954"
  by (simp add: small_simps ts_small_parse_table_965_def)

definition ts_small_parse_table_966 :: "small_group list" where
  "ts_small_parse_table_966 = [
     (152954, 7, [(ACTIONS 3, 1, [anon_sym_SLASH_SLASH]), (ACTIONS 5, 1,
       [anon_sym_SLASH_STAR]), (ACTIONS 7, 1, [anon_sym_SLASH_SLASH_SLASH]), (ACTIONS 9, 1,
       [sym__block_comment]), (ACTIONS 11, 1, [sym__documentation_block_comment]), (ACTIONS 7083,
       1, [anon_sym_EQ]), (STATE 3513, 2, [sym_comment, sym_documentation_comment])]),
     (152977, 7, [(ACTIONS 3, 1, [anon_sym_SLASH_SLASH]), (ACTIONS 5, 1,
       [anon_sym_SLASH_STAR]), (ACTIONS 7, 1, [anon_sym_SLASH_SLASH_SLASH]), (ACTIONS 9, 1,
       [sym__block_comment]), (ACTIONS 11, 1, [sym__documentation_block_comment]), (ACTIONS 7085,
       1, [sym_identifier]), (STATE 3514, 2, [sym_comment, sym_documentation_comment])]),
     (153000, 7, [(ACTIONS 3, 1, [anon_sym_SLASH_SLASH]), (ACTIONS 5, 1,
       [anon_sym_SLASH_STAR]), (ACTIONS 7, 1, [anon_sym_SLASH_SLASH_SLASH]), (ACTIONS 9, 1,
       [sym__block_comment]), (ACTIONS 11, 1, [sym__documentation_block_comment]), (ACTIONS 7087,
       1, [anon_sym_class]), (STATE 3515, 2, [sym_comment, sym_documentation_comment])]),
     (153023, 7, [(ACTIONS 3, 1, [anon_sym_SLASH_SLASH]), (ACTIONS 5, 1,
       [anon_sym_SLASH_STAR]), (ACTIONS 7, 1, [anon_sym_SLASH_SLASH_SLASH]), (ACTIONS 9, 1,
       [sym__block_comment]), (ACTIONS 11, 1, [sym__documentation_block_comment]), (ACTIONS 4238,
       1, [anon_sym_RPAREN]), (STATE 3516, 2, [sym_comment, sym_documentation_comment])]),
     (153046, 7, [(ACTIONS 3, 1, [anon_sym_SLASH_SLASH]), (ACTIONS 5, 1,
       [anon_sym_SLASH_STAR]), (ACTIONS 7, 1, [anon_sym_SLASH_SLASH_SLASH]), (ACTIONS 9, 1,
       [sym__block_comment]), (ACTIONS 11, 1, [sym__documentation_block_comment]), (ACTIONS 7089,
       1, [anon_sym_RPAREN]), (STATE 3517, 2, [sym_comment, sym_documentation_comment])]),
     (153069, 7, [(ACTIONS 3, 1, [anon_sym_SLASH_SLASH]), (ACTIONS 5, 1,
       [anon_sym_SLASH_STAR]), (ACTIONS 7, 1, [anon_sym_SLASH_SLASH_SLASH]), (ACTIONS 9, 1,
       [sym__block_comment]), (ACTIONS 11, 1, [sym__documentation_block_comment]), (ACTIONS 7091,
       1, [anon_sym_RPAREN]), (STATE 3518, 2, [sym_comment, sym_documentation_comment])]),
     (153092, 7, [(ACTIONS 3, 1, [anon_sym_SLASH_SLASH]), (ACTIONS 5, 1,
       [anon_sym_SLASH_STAR]), (ACTIONS 7, 1, [anon_sym_SLASH_SLASH_SLASH]), (ACTIONS 9, 1,
       [sym__block_comment]), (ACTIONS 11, 1, [sym__documentation_block_comment]), (ACTIONS 7093,
       1, [anon_sym_SEMI]), (STATE 3519, 2, [sym_comment, sym_documentation_comment])]),
     (153115, 7, [(ACTIONS 3, 1, [anon_sym_SLASH_SLASH]), (ACTIONS 5, 1,
       [anon_sym_SLASH_STAR]), (ACTIONS 7, 1, [anon_sym_SLASH_SLASH_SLASH]), (ACTIONS 9, 1,
       [sym__block_comment]), (ACTIONS 11, 1, [sym__documentation_block_comment]), (ACTIONS 7095,
       1, [anon_sym_SEMI]), (STATE 3520, 2, [sym_comment, sym_documentation_comment])]),
     (153138, 7, [(ACTIONS 3, 1, [anon_sym_SLASH_SLASH]), (ACTIONS 5, 1,
       [anon_sym_SLASH_STAR]), (ACTIONS 7, 1, [anon_sym_SLASH_SLASH_SLASH]), (ACTIONS 9, 1,
       [sym__block_comment]), (ACTIONS 11, 1, [sym__documentation_block_comment]), (ACTIONS 4216,
       1, [anon_sym_RPAREN]), (STATE 3521, 2, [sym_comment, sym_documentation_comment])])]"

lemma small_run_966: "small_run 3513 152954 ts_small_parse_table_966 3522 153161"
  by (simp add: small_simps ts_small_parse_table_966_def)

definition ts_small_parse_table_967 :: "small_group list" where
  "ts_small_parse_table_967 = [
     (153161, 7, [(ACTIONS 3, 1, [anon_sym_SLASH_SLASH]), (ACTIONS 5, 1,
       [anon_sym_SLASH_STAR]), (ACTIONS 7, 1, [anon_sym_SLASH_SLASH_SLASH]), (ACTIONS 9, 1,
       [sym__block_comment]), (ACTIONS 11, 1, [sym__documentation_block_comment]), (ACTIONS 6323,
       1, [anon_sym_RPAREN]), (STATE 3522, 2, [sym_comment, sym_documentation_comment])]),
     (153184, 7, [(ACTIONS 3, 1, [anon_sym_SLASH_SLASH]), (ACTIONS 5, 1,
       [anon_sym_SLASH_STAR]), (ACTIONS 7, 1, [anon_sym_SLASH_SLASH_SLASH]), (ACTIONS 9, 1,
       [sym__block_comment]), (ACTIONS 11, 1, [sym__documentation_block_comment]), (ACTIONS 7097,
       1, [sym_identifier]), (STATE 3523, 2, [sym_comment, sym_documentation_comment])]),
     (153207, 7, [(ACTIONS 3, 1, [anon_sym_SLASH_SLASH]), (ACTIONS 5, 1,
       [anon_sym_SLASH_STAR]), (ACTIONS 7, 1, [anon_sym_SLASH_SLASH_SLASH]), (ACTIONS 9, 1,
       [sym__block_comment]), (ACTIONS 11, 1, [sym__documentation_block_comment]), (ACTIONS 7099,
       1, [sym_identifier]), (STATE 3524, 2, [sym_comment, sym_documentation_comment])]),
     (153230, 7, [(ACTIONS 3, 1, [anon_sym_SLASH_SLASH]), (ACTIONS 5, 1,
       [anon_sym_SLASH_STAR]), (ACTIONS 7, 1, [anon_sym_SLASH_SLASH_SLASH]), (ACTIONS 9, 1,
       [sym__block_comment]), (ACTIONS 11, 1, [sym__documentation_block_comment]), (ACTIONS 6317,
       1, [anon_sym_class]), (STATE 3525, 2, [sym_comment, sym_documentation_comment])]),
     (153253, 7, [(ACTIONS 3, 1, [anon_sym_SLASH_SLASH]), (ACTIONS 5, 1,
       [anon_sym_SLASH_STAR]), (ACTIONS 7, 1, [anon_sym_SLASH_SLASH_SLASH]), (ACTIONS 9, 1,
       [sym__block_comment]), (ACTIONS 11, 1, [sym__documentation_block_comment]), (ACTIONS 7101,
       1, [anon_sym_RPAREN]), (STATE 3526, 2, [sym_comment, sym_documentation_comment])]),
     (153276, 7, [(ACTIONS 3, 1, [anon_sym_SLASH_SLASH]), (ACTIONS 5, 1,
       [anon_sym_SLASH_STAR]), (ACTIONS 7, 1, [anon_sym_SLASH_SLASH_SLASH]), (ACTIONS 9, 1,
       [sym__block_comment]), (ACTIONS 11, 1, [sym__documentation_block_comment]), (ACTIONS 7103,
       1, [sym_identifier]), (STATE 3527, 2, [sym_comment, sym_documentation_comment])]),
     (153299, 7, [(ACTIONS 3, 1, [anon_sym_SLASH_SLASH]), (ACTIONS 5, 1,
       [anon_sym_SLASH_STAR]), (ACTIONS 7, 1, [anon_sym_SLASH_SLASH_SLASH]), (ACTIONS 9, 1,
       [sym__block_comment]), (ACTIONS 11, 1, [sym__documentation_block_comment]), (ACTIONS 4791,
       1, [anon_sym_SEMI]), (STATE 3528, 2, [sym_comment, sym_documentation_comment])]),
     (153322, 7, [(ACTIONS 3, 1, [anon_sym_SLASH_SLASH]), (ACTIONS 5, 1,
       [anon_sym_SLASH_STAR]), (ACTIONS 7, 1, [anon_sym_SLASH_SLASH_SLASH]), (ACTIONS 9, 1,
       [sym__block_comment]), (ACTIONS 11, 1, [sym__documentation_block_comment]), (ACTIONS 7105,
       1, [sym_identifier]), (STATE 3529, 2, [sym_comment, sym_documentation_comment])]),
     (153345, 7, [(ACTIONS 3, 1, [anon_sym_SLASH_SLASH]), (ACTIONS 5, 1,
       [anon_sym_SLASH_STAR]), (ACTIONS 7, 1, [anon_sym_SLASH_SLASH_SLASH]), (ACTIONS 9, 1,
       [sym__block_comment]), (ACTIONS 11, 1, [sym__documentation_block_comment]), (ACTIONS 7107,
       1, [sym_identifier]), (STATE 3530, 2, [sym_comment, sym_documentation_comment])])]"

lemma small_run_967: "small_run 3522 153161 ts_small_parse_table_967 3531 153368"
  by (simp add: small_simps ts_small_parse_table_967_def)

definition ts_small_parse_table_968 :: "small_group list" where
  "ts_small_parse_table_968 = [
     (153368, 7, [(ACTIONS 3, 1, [anon_sym_SLASH_SLASH]), (ACTIONS 5, 1,
       [anon_sym_SLASH_STAR]), (ACTIONS 7, 1, [anon_sym_SLASH_SLASH_SLASH]), (ACTIONS 9, 1,
       [sym__block_comment]), (ACTIONS 11, 1, [sym__documentation_block_comment]), (ACTIONS 7109,
       1, [sym_identifier]), (STATE 3531, 2, [sym_comment, sym_documentation_comment])]),
     (153391, 7, [(ACTIONS 3, 1, [anon_sym_SLASH_SLASH]), (ACTIONS 5, 1,
       [anon_sym_SLASH_STAR]), (ACTIONS 7, 1, [anon_sym_SLASH_SLASH_SLASH]), (ACTIONS 9, 1,
       [sym__block_comment]), (ACTIONS 11, 1, [sym__documentation_block_comment]), (ACTIONS 7111,
       1, [sym_identifier]), (STATE 3532, 2, [sym_comment, sym_documentation_comment])]),
     (153414, 7, [(ACTIONS 3, 1, [anon_sym_SLASH_SLASH]), (ACTIONS 5, 1,
       [anon_sym_SLASH_STAR]), (ACTIONS 7, 1, [anon_sym_SLASH_SLASH_SLASH]), (ACTIONS 9, 1,
       [sym__block_comment]), (ACTIONS 11, 1, [sym__documentation_block_comment]), (ACTIONS 7113,
       1, [anon_sym_EQ]), (STATE 3533, 2, [sym_comment, sym_documentation_comment])]),
     (153437, 7, [(ACTIONS 3, 1, [anon_sym_SLASH_SLASH]), (ACTIONS 5, 1,
       [anon_sym_SLASH_STAR]), (ACTIONS 7, 1, [anon_sym_SLASH_SLASH_SLASH]), (ACTIONS 9, 1,
       [sym__block_comment]), (ACTIONS 11, 1, [sym__documentation_block_comment]), (ACTIONS 7115,
       1, [sym_identifier]), (STATE 3534, 2, [sym_comment, sym_documentation_comment])]),
     (153460, 7, [(ACTIONS 3, 1, [anon_sym_SLASH_SLASH]), (ACTIONS 5, 1,
       [anon_sym_SLASH_STAR]), (ACTIONS 7, 1, [anon_sym_SLASH_SLASH_SLASH]), (ACTIONS 9, 1,
       [sym__block_comment]), (ACTIONS 11, 1, [sym__documentation_block_comment]), (ACTIONS 7117,
       1, [sym_identifier]), (STATE 3535, 2, [sym_comment, sym_documentation_comment])]),
     (153483, 7, [(ACTIONS 3, 1, [anon_sym_SLASH_SLASH]), (ACTIONS 5, 1,
       [anon_sym_SLASH_STAR]), (ACTIONS 7, 1, [anon_sym_SLASH_SLASH_SLASH]), (ACTIONS 9, 1,
       [sym__block_comment]), (ACTIONS 11, 1, [sym__documentation_block_comment]), (ACTIONS 7120,
       1, [sym_identifier]), (STATE 3536, 2, [sym_comment, sym_documentation_comment])]),
     (153506, 7, [(ACTIONS 3, 1, [anon_sym_SLASH_SLASH]), (ACTIONS 5, 1,
       [anon_sym_SLASH_STAR]), (ACTIONS 7, 1, [anon_sym_SLASH_SLASH_SLASH]), (ACTIONS 9, 1,
       [sym__block_comment]), (ACTIONS 11, 1, [sym__documentation_block_comment]), (ACTIONS 7122,
       1, [sym_identifier]), (STATE 3537, 2, [sym_comment, sym_documentation_comment])]),
     (153529, 7, [(ACTIONS 3, 1, [anon_sym_SLASH_SLASH]), (ACTIONS 5, 1,
       [anon_sym_SLASH_STAR]), (ACTIONS 7, 1, [anon_sym_SLASH_SLASH_SLASH]), (ACTIONS 9, 1,
       [sym__block_comment]), (ACTIONS 11, 1, [sym__documentation_block_comment]), (ACTIONS 7124,
       1, [anon_sym_DOT]), (STATE 3538, 2, [sym_comment, sym_documentation_comment])]),
     (153552, 7, [(ACTIONS 3, 1, [anon_sym_SLASH_SLASH]), (ACTIONS 5, 1,
       [anon_sym_SLASH_STAR]), (ACTIONS 7, 1, [anon_sym_SLASH_SLASH_SLASH]), (ACTIONS 9, 1,
       [sym__block_comment]), (ACTIONS 11, 1, [sym__documentation_block_comment]), (ACTIONS 4955,
       1, [anon_sym_class]), (STATE 3539, 2, [sym_comment, sym_documentation_comment])])]"

lemma small_run_968: "small_run 3531 153368 ts_small_parse_table_968 3540 153575"
  by (simp add: small_simps ts_small_parse_table_968_def)

definition ts_small_parse_table_969 :: "small_group list" where
  "ts_small_parse_table_969 = [
     (153575, 7, [(ACTIONS 3, 1, [anon_sym_SLASH_SLASH]), (ACTIONS 5, 1,
       [anon_sym_SLASH_STAR]), (ACTIONS 7, 1, [anon_sym_SLASH_SLASH_SLASH]), (ACTIONS 9, 1,
       [sym__block_comment]), (ACTIONS 11, 1, [sym__documentation_block_comment]), (ACTIONS 7126,
       1, [anon_sym_RPAREN]), (STATE 3540, 2, [sym_comment, sym_documentation_comment])]),
     (153598, 7, [(ACTIONS 3, 1, [anon_sym_SLASH_SLASH]), (ACTIONS 5, 1,
       [anon_sym_SLASH_STAR]), (ACTIONS 7, 1, [anon_sym_SLASH_SLASH_SLASH]), (ACTIONS 9, 1,
       [sym__block_comment]), (ACTIONS 11, 1, [sym__documentation_block_comment]), (ACTIONS 7128,
       1, [sym_identifier]), (STATE 3541, 2, [sym_comment, sym_documentation_comment])]),
     (153621, 7, [(ACTIONS 3, 1, [anon_sym_SLASH_SLASH]), (ACTIONS 5, 1,
       [anon_sym_SLASH_STAR]), (ACTIONS 7, 1, [anon_sym_SLASH_SLASH_SLASH]), (ACTIONS 9, 1,
       [sym__block_comment]), (ACTIONS 11, 1, [sym__documentation_block_comment]), (ACTIONS 5323,
       1, [anon_sym_SEMI]), (STATE 3542, 2, [sym_comment, sym_documentation_comment])]),
     (153644, 7, [(ACTIONS 3, 1, [anon_sym_SLASH_SLASH]), (ACTIONS 5, 1,
       [anon_sym_SLASH_STAR]), (ACTIONS 7, 1, [anon_sym_SLASH_SLASH_SLASH]), (ACTIONS 9, 1,
       [sym__block_comment]), (ACTIONS 11, 1, [sym__documentation_block_comment]), (ACTIONS 7130,
       1, [sym_identifier]), (STATE 3543, 2, [sym_comment, sym_documentation_comment])]),
     (153667, 7, [(ACTIONS 3, 1, [anon_sym_SLASH_SLASH]), (ACTIONS 5, 1,
       [anon_sym_SLASH_STAR]), (ACTIONS 7, 1, [anon_sym_SLASH_SLASH_SLASH]), (ACTIONS 9, 1,
       [sym__block_comment]), (ACTIONS 11, 1, [sym__documentation_block_comment]), (ACTIONS 7132,
       1, [anon_sym_COLON]), (STATE 3544, 2, [sym_comment, sym_documentation_comment])]),
     (153690, 7, [(ACTIONS 3, 1, [anon_sym_SLASH_SLASH]), (ACTIONS 9, 1, [sym__block_comment]),
       (ACTIONS 11, 1, [sym__documentation_block_comment]), (ACTIONS 5165, 1,
       [anon_sym_SLASH_STAR]), (ACTIONS 5167, 1, [anon_sym_SLASH_SLASH_SLASH]), (ACTIONS 7134, 1,
       [aux_sym_documentation_comment_token1]), (STATE 3545, 2, [sym_comment,
       sym_documentation_comment])]),
     (153713, 7, [(ACTIONS 3, 1, [anon_sym_SLASH_SLASH]), (ACTIONS 5, 1,
       [anon_sym_SLASH_STAR]), (ACTIONS 7, 1, [anon_sym_SLASH_SLASH_SLASH]), (ACTIONS 9, 1,
       [sym__block_comment]), (ACTIONS 11, 1, [sym__documentation_block_comment]), (ACTIONS 7136,
       1, [anon_sym_SEMI]), (STATE 3546, 2, [sym_comment, sym_documentation_comment])]),
     (153736, 7, [(ACTIONS 3, 1, [anon_sym_SLASH_SLASH]), (ACTIONS 5, 1,
       [anon_sym_SLASH_STAR]), (ACTIONS 7, 1, [anon_sym_SLASH_SLASH_SLASH]), (ACTIONS 9, 1,
       [sym__block_comment]), (ACTIONS 11, 1, [sym__documentation_block_comment]), (ACTIONS 7138,
       1, [sym_identifier]), (STATE 3547, 2, [sym_comment, sym_documentation_comment])]),
     (153759, 7, [(ACTIONS 3, 1, [anon_sym_SLASH_SLASH]), (ACTIONS 5, 1,
       [anon_sym_SLASH_STAR]), (ACTIONS 7, 1, [anon_sym_SLASH_SLASH_SLASH]), (ACTIONS 9, 1,
       [sym__block_comment]), (ACTIONS 11, 1, [sym__documentation_block_comment]), (ACTIONS 7140,
       1, [anon_sym_SEMI]), (STATE 3548, 2, [sym_comment, sym_documentation_comment])])]"

lemma small_run_969: "small_run 3540 153575 ts_small_parse_table_969 3549 153782"
  by (simp add: small_simps ts_small_parse_table_969_def)

definition ts_small_parse_table_970 :: "small_group list" where
  "ts_small_parse_table_970 = [
     (153782, 7, [(ACTIONS 3, 1, [anon_sym_SLASH_SLASH]), (ACTIONS 5, 1,
       [anon_sym_SLASH_STAR]), (ACTIONS 7, 1, [anon_sym_SLASH_SLASH_SLASH]), (ACTIONS 9, 1,
       [sym__block_comment]), (ACTIONS 11, 1, [sym__documentation_block_comment]), (ACTIONS 7142,
       1, [sym_identifier]), (STATE 3549, 2, [sym_comment, sym_documentation_comment])]),
     (153805, 7, [(ACTIONS 3, 1, [anon_sym_SLASH_SLASH]), (ACTIONS 9, 1, [sym__block_comment]),
       (ACTIONS 11, 1, [sym__documentation_block_comment]), (ACTIONS 5165, 1,
       [anon_sym_SLASH_STAR]), (ACTIONS 5167, 1, [anon_sym_SLASH_SLASH_SLASH]), (ACTIONS 7144, 1,
       [aux_sym_comment_token2]), (STATE 3550, 2, [sym_comment, sym_documentation_comment])]),
     (153828, 7, [(ACTIONS 3, 1, [anon_sym_SLASH_SLASH]), (ACTIONS 5, 1,
       [anon_sym_SLASH_STAR]), (ACTIONS 7, 1, [anon_sym_SLASH_SLASH_SLASH]), (ACTIONS 9, 1,
       [sym__block_comment]), (ACTIONS 11, 1, [sym__documentation_block_comment]), (ACTIONS 7146,
       1, [anon_sym_DOT]), (STATE 3551, 2, [sym_comment, sym_documentation_comment])]),
     (153851, 7, [(ACTIONS 3, 1, [anon_sym_SLASH_SLASH]), (ACTIONS 5, 1,
       [anon_sym_SLASH_STAR]), (ACTIONS 7, 1, [anon_sym_SLASH_SLASH_SLASH]), (ACTIONS 9, 1,
       [sym__block_comment]), (ACTIONS 11, 1, [sym__documentation_block_comment]), (ACTIONS 6527,
       1, [anon_sym_COMMA]), (STATE 3552, 2, [sym_comment, sym_documentation_comment])]),
     (153874, 7, [(ACTIONS 3, 1, [anon_sym_SLASH_SLASH]), (ACTIONS 9, 1, [sym__block_comment]),
       (ACTIONS 11, 1, [sym__documentation_block_comment]), (ACTIONS 5165, 1,
       [anon_sym_SLASH_STAR]), (ACTIONS 5167, 1, [anon_sym_SLASH_SLASH_SLASH]), (ACTIONS 7148, 1,
       [aux_sym_comment_token1]), (STATE 3553, 2, [sym_comment, sym_documentation_comment])]),
     (153897, 7, [(ACTIONS 3, 1, [anon_sym_SLASH_SLASH]), (ACTIONS 5, 1,
       [anon_sym_SLASH_STAR]), (ACTIONS 7, 1, [anon_sym_SLASH_SLASH_SLASH]), (ACTIONS 9, 1,
       [sym__block_comment]), (ACTIONS 11, 1, [sym__documentation_block_comment]), (ACTIONS 7150,
       1, [anon_sym_LBRACE]), (STATE 3554, 2, [sym_comment, sym_documentation_comment])]),
     (153920, 7, [(ACTIONS 3, 1, [anon_sym_SLASH_SLASH]), (ACTIONS 5, 1,
       [anon_sym_SLASH_STAR]), (ACTIONS 7, 1, [anon_sym_SLASH_SLASH_SLASH]), (ACTIONS 9, 1,
       [sym__block_comment]), (ACTIONS 11, 1, [sym__documentation_block_comment]), (ACTIONS 7152,
       1, [anon_sym_RPAREN]), (STATE 3555, 2, [sym_comment, sym_documentation_comment])]),
     (153943, 7, [(ACTIONS 3, 1, [anon_sym_SLASH_SLASH]), (ACTIONS 5, 1,
       [anon_sym_SLASH_STAR]), (ACTIONS 7, 1, [anon_sym_SLASH_SLASH_SLASH]), (ACTIONS 9, 1,
       [sym__block_comment]), (ACTIONS 11, 1, [sym__documentation_block_comment]), (ACTIONS 7154,
       1, [anon_sym_RPAREN]), (STATE 3556, 2, [sym_comment, sym_documentation_comment])]),
     (153966, 7, [(ACTIONS 3, 1, [anon_sym_SLASH_SLASH]), (ACTIONS 5, 1,
       [anon_sym_SLASH_STAR]), (ACTIONS 7, 1, [anon_sym_SLASH_SLASH_SLASH]), (ACTIONS 9, 1,
       [sym__block_comment]), (ACTIONS 11, 1, [sym__documentation_block_comment]), (ACTIONS 7156,
       1, [sym_identifier]), (STATE 3557, 2, [sym_comment, sym_documentation_comment])])]"

lemma small_run_970: "small_run 3549 153782 ts_small_parse_table_970 3558 153989"
  by (simp add: small_simps ts_small_parse_table_970_def)

definition ts_small_parse_table_971 :: "small_group list" where
  "ts_small_parse_table_971 = [
     (153989, 7, [(ACTIONS 3, 1, [anon_sym_SLASH_SLASH]), (ACTIONS 5, 1,
       [anon_sym_SLASH_STAR]), (ACTIONS 7, 1, [anon_sym_SLASH_SLASH_SLASH]), (ACTIONS 9, 1,
       [sym__block_comment]), (ACTIONS 11, 1, [sym__documentation_block_comment]), (ACTIONS 7158,
       1, [anon_sym_COLON]), (STATE 3558, 2, [sym_comment, sym_documentation_comment])]),
     (154012, 7, [(ACTIONS 3, 1, [anon_sym_SLASH_SLASH]), (ACTIONS 5, 1,
       [anon_sym_SLASH_STAR]), (ACTIONS 7, 1, [anon_sym_SLASH_SLASH_SLASH]), (ACTIONS 9, 1,
       [sym__block_comment]), (ACTIONS 11, 1, [sym__documentation_block_comment]), (ACTIONS 7160,
       1, [anon_sym_RPAREN]), (STATE 3559, 2, [sym_comment, sym_documentation_comment])]),
     (154035, 7, [(ACTIONS 3, 1, [anon_sym_SLASH_SLASH]), (ACTIONS 5, 1,
       [anon_sym_SLASH_STAR]), (ACTIONS 7, 1, [anon_sym_SLASH_SLASH_SLASH]), (ACTIONS 9, 1,
       [sym__block_comment]), (ACTIONS 11, 1, [sym__documentation_block_comment]), (ACTIONS 7162,
       1, [sym_identifier]), (STATE 3560, 2, [sym_comment, sym_documentation_comment])]),
     (154058, 7, [(ACTIONS 3, 1, [anon_sym_SLASH_SLASH]), (ACTIONS 5, 1,
       [anon_sym_SLASH_STAR]), (ACTIONS 7, 1, [anon_sym_SLASH_SLASH_SLASH]), (ACTIONS 9, 1,
       [sym__block_comment]), (ACTIONS 11, 1, [sym__documentation_block_comment]), (ACTIONS 7164,
       1, [anon_sym_LBRACE]), (STATE 3561, 2, [sym_comment, sym_documentation_comment])]),
     (154081, 7, [(ACTIONS 3, 1, [anon_sym_SLASH_SLASH]), (ACTIONS 5, 1,
       [anon_sym_SLASH_STAR]), (ACTIONS 7, 1, [anon_sym_SLASH_SLASH_SLASH]), (ACTIONS 9, 1,
       [sym__block_comment]), (ACTIONS 11, 1, [sym__documentation_block_comment]), (ACTIONS 7166,
       1, [anon_sym_RPAREN]), (STATE 3562, 2, [sym_comment, sym_documentation_comment])]),
     (154104, 7, [(ACTIONS 3, 1, [anon_sym_SLASH_SLASH]), (ACTIONS 5, 1,
       [anon_sym_SLASH_STAR]), (ACTIONS 7, 1, [anon_sym_SLASH_SLASH_SLASH]), (ACTIONS 9, 1,
       [sym__block_comment]), (ACTIONS 11, 1, [sym__documentation_block_comment]), (ACTIONS 3771,
       1, [anon_sym_RPAREN]), (STATE 3563, 2, [sym_comment, sym_documentation_comment])]),
     (154127, 7, [(ACTIONS 3, 1, [anon_sym_SLASH_SLASH]), (ACTIONS 5, 1,
       [anon_sym_SLASH_STAR]), (ACTIONS 7, 1, [anon_sym_SLASH_SLASH_SLASH]), (ACTIONS 9, 1,
       [sym__block_comment]), (ACTIONS 11, 1, [sym__documentation_block_comment]), (ACTIONS 7168,
       1, [anon_sym_RPAREN]), (STATE 3564, 2, [sym_comment, sym_documentation_comment])]),
     (154150, 7, [(ACTIONS 3, 1, [anon_sym_SLASH_SLASH]), (ACTIONS 5, 1,
       [anon_sym_SLASH_STAR]), (ACTIONS 7, 1, [anon_sym_SLASH_SLASH_SLASH]), (ACTIONS 9, 1,
       [sym__block_comment]), (ACTIONS 11, 1, [sym__documentation_block_comment]), (ACTIONS 7170,
       1, [anon_sym_LBRACE]), (STATE 3565, 2, [sym_comment, sym_documentation_comment])]),
     (154173, 7, [(ACTIONS 3, 1, [anon_sym_SLASH_SLASH]), (ACTIONS 5, 1,
       [anon_sym_SLASH_STAR]), (ACTIONS 7, 1, [anon_sym_SLASH_SLASH_SLASH]), (ACTIONS 9, 1,
       [sym__block_comment]), (ACTIONS 11, 1, [sym__documentation_block_comment]), (ACTIONS 7172,
       1, [anon_sym_RPAREN]), (STATE 3566, 2, [sym_comment, sym_documentation_comment])])]"

lemma small_run_971: "small_run 3558 153989 ts_small_parse_table_971 3567 154196"
  by (simp add: small_simps ts_small_parse_table_971_def)

definition ts_small_parse_table_972 :: "small_group list" where
  "ts_small_parse_table_972 = [
     (154196, 7, [(ACTIONS 3, 1, [anon_sym_SLASH_SLASH]), (ACTIONS 5, 1,
       [anon_sym_SLASH_STAR]), (ACTIONS 7, 1, [anon_sym_SLASH_SLASH_SLASH]), (ACTIONS 9, 1,
       [sym__block_comment]), (ACTIONS 11, 1, [sym__documentation_block_comment]), (ACTIONS 7174,
       1, [sym_identifier]), (STATE 3567, 2, [sym_comment, sym_documentation_comment])]),
     (154219, 7, [(ACTIONS 3, 1, [anon_sym_SLASH_SLASH]), (ACTIONS 5, 1,
       [anon_sym_SLASH_STAR]), (ACTIONS 7, 1, [anon_sym_SLASH_SLASH_SLASH]), (ACTIONS 9, 1,
       [sym__block_comment]), (ACTIONS 11, 1, [sym__documentation_block_comment]), (ACTIONS 7176,
       1, [anon_sym_RPAREN]), (STATE 3568, 2, [sym_comment, sym_documentation_comment])]),
     (154242, 7, [(ACTIONS 3, 1, [anon_sym_SLASH_SLASH]), (ACTIONS 5, 1,
       [anon_sym_SLASH_STAR]), (ACTIONS 7, 1, [anon_sym_SLASH_SLASH_SLASH]), (ACTIONS 9, 1,
       [sym__block_comment]), (ACTIONS 11, 1, [sym__documentation_block_comment]), (ACTIONS 7178,
       1, [anon_sym_RPAREN]), (STATE 3569, 2, [sym_comment, sym_documentation_comment])]),
     (154265, 7, [(ACTIONS 3, 1, [anon_sym_SLASH_SLASH]), (ACTIONS 5, 1,
       [anon_sym_SLASH_STAR]), (ACTIONS 7, 1, [anon_sym_SLASH_SLASH_SLASH]), (ACTIONS 9, 1,
       [sym__block_comment]), (ACTIONS 11, 1, [sym__documentation_block_comment]), (ACTIONS 7180,
       1, [anon_sym_RPAREN]), (STATE 3570, 2, [sym_comment, sym_documentation_comment])]),
     (154288, 7, [(ACTIONS 3, 1, [anon_sym_SLASH_SLASH]), (ACTIONS 5, 1,
       [anon_sym_SLASH_STAR]), (ACTIONS 7, 1, [anon_sym_SLASH_SLASH_SLASH]), (ACTIONS 9, 1,
       [sym__block_comment]), (ACTIONS 11, 1, [sym__documentation_block_comment]), (ACTIONS 7182,
       1, [anon_sym_RPAREN]), (STATE 3571, 2, [sym_comment, sym_documentation_comment])]),
     (154311, 1, [(ACTIONS 7184, 1, [ts_builtin_sym_end])]),
     (154315, 1, [(ACTIONS 7186, 1, [ts_builtin_sym_end])]),
     (154319, 1, [(ACTIONS 7188, 1, [ts_builtin_sym_end])]),
     (154323, 1, [(ACTIONS 7190, 1, [ts_builtin_sym_end])]),
     (154327, 1, [(ACTIONS 7192, 1, [ts_builtin_sym_end])])]"

lemma small_run_972: "small_run 3567 154196 ts_small_parse_table_972 3577 154331"
  by (simp add: small_simps ts_small_parse_table_972_def)

definition ts_small_parse_table_part_10 :: "small_group list" where
  "ts_small_parse_table_part_10 =
     ts_small_parse_table_896 @ ts_small_parse_table_897 @ ts_small_parse_table_898 @
     ts_small_parse_table_899 @ ts_small_parse_table_900 @ ts_small_parse_table_901 @
     ts_small_parse_table_902 @ ts_small_parse_table_903 @ ts_small_parse_table_904 @
     ts_small_parse_table_905 @ ts_small_parse_table_906 @ ts_small_parse_table_907 @
     ts_small_parse_table_908 @ ts_small_parse_table_909 @ ts_small_parse_table_910 @
     ts_small_parse_table_911 @ ts_small_parse_table_912 @ ts_small_parse_table_913 @
     ts_small_parse_table_914 @ ts_small_parse_table_915 @ ts_small_parse_table_916 @
     ts_small_parse_table_917 @ ts_small_parse_table_918 @ ts_small_parse_table_919 @
     ts_small_parse_table_920 @ ts_small_parse_table_921 @ ts_small_parse_table_922 @
     ts_small_parse_table_923 @ ts_small_parse_table_924 @ ts_small_parse_table_925 @
     ts_small_parse_table_926 @ ts_small_parse_table_927 @ ts_small_parse_table_928 @
     ts_small_parse_table_929 @ ts_small_parse_table_930 @ ts_small_parse_table_931 @
     ts_small_parse_table_932 @ ts_small_parse_table_933 @ ts_small_parse_table_934 @
     ts_small_parse_table_935 @ ts_small_parse_table_936 @ ts_small_parse_table_937 @
     ts_small_parse_table_938 @ ts_small_parse_table_939 @ ts_small_parse_table_940 @
     ts_small_parse_table_941 @ ts_small_parse_table_942 @ ts_small_parse_table_943 @
     ts_small_parse_table_944 @ ts_small_parse_table_945 @ ts_small_parse_table_946 @
     ts_small_parse_table_947 @ ts_small_parse_table_948 @ ts_small_parse_table_949 @
     ts_small_parse_table_950 @ ts_small_parse_table_951 @ ts_small_parse_table_952 @
     ts_small_parse_table_953 @ ts_small_parse_table_954 @ ts_small_parse_table_955 @
     ts_small_parse_table_956 @ ts_small_parse_table_957 @ ts_small_parse_table_958 @
     ts_small_parse_table_959 @ ts_small_parse_table_960 @ ts_small_parse_table_961 @
     ts_small_parse_table_962 @ ts_small_parse_table_963 @ ts_small_parse_table_964 @
     ts_small_parse_table_965 @ ts_small_parse_table_966 @ ts_small_parse_table_967 @
     ts_small_parse_table_968 @ ts_small_parse_table_969 @ ts_small_parse_table_970 @
     ts_small_parse_table_971 @ ts_small_parse_table_972"

lemma small_part_10: "small_run 2936 138629 ts_small_parse_table_part_10 3577 154331"
  unfolding ts_small_parse_table_part_10_def
  by (rule small_run_append [OF small_run_896], rule small_run_append [OF small_run_897],
    rule small_run_append [OF small_run_898], rule small_run_append [OF small_run_899],
    rule small_run_append [OF small_run_900], rule small_run_append [OF small_run_901],
    rule small_run_append [OF small_run_902], rule small_run_append [OF small_run_903],
    rule small_run_append [OF small_run_904], rule small_run_append [OF small_run_905],
    rule small_run_append [OF small_run_906], rule small_run_append [OF small_run_907],
    rule small_run_append [OF small_run_908], rule small_run_append [OF small_run_909],
    rule small_run_append [OF small_run_910], rule small_run_append [OF small_run_911],
    rule small_run_append [OF small_run_912], rule small_run_append [OF small_run_913],
    rule small_run_append [OF small_run_914], rule small_run_append [OF small_run_915],
    rule small_run_append [OF small_run_916], rule small_run_append [OF small_run_917],
    rule small_run_append [OF small_run_918], rule small_run_append [OF small_run_919],
    rule small_run_append [OF small_run_920], rule small_run_append [OF small_run_921],
    rule small_run_append [OF small_run_922], rule small_run_append [OF small_run_923],
    rule small_run_append [OF small_run_924], rule small_run_append [OF small_run_925],
    rule small_run_append [OF small_run_926], rule small_run_append [OF small_run_927],
    rule small_run_append [OF small_run_928], rule small_run_append [OF small_run_929],
    rule small_run_append [OF small_run_930], rule small_run_append [OF small_run_931],
    rule small_run_append [OF small_run_932], rule small_run_append [OF small_run_933],
    rule small_run_append [OF small_run_934], rule small_run_append [OF small_run_935],
    rule small_run_append [OF small_run_936], rule small_run_append [OF small_run_937],
    rule small_run_append [OF small_run_938], rule small_run_append [OF small_run_939],
    rule small_run_append [OF small_run_940], rule small_run_append [OF small_run_941],
    rule small_run_append [OF small_run_942], rule small_run_append [OF small_run_943],
    rule small_run_append [OF small_run_944], rule small_run_append [OF small_run_945],
    rule small_run_append [OF small_run_946], rule small_run_append [OF small_run_947],
    rule small_run_append [OF small_run_948], rule small_run_append [OF small_run_949],
    rule small_run_append [OF small_run_950], rule small_run_append [OF small_run_951],
    rule small_run_append [OF small_run_952], rule small_run_append [OF small_run_953],
    rule small_run_append [OF small_run_954], rule small_run_append [OF small_run_955],
    rule small_run_append [OF small_run_956], rule small_run_append [OF small_run_957],
    rule small_run_append [OF small_run_958], rule small_run_append [OF small_run_959],
    rule small_run_append [OF small_run_960], rule small_run_append [OF small_run_961],
    rule small_run_append [OF small_run_962], rule small_run_append [OF small_run_963],
    rule small_run_append [OF small_run_964], rule small_run_append [OF small_run_965],
    rule small_run_append [OF small_run_966], rule small_run_append [OF small_run_967],
    rule small_run_append [OF small_run_968], rule small_run_append [OF small_run_969],
    rule small_run_append [OF small_run_970], rule small_run_append [OF small_run_971],
    rule small_run_972)

end
