(* ===== verification/Dart_Parse_Table.thy ===== *)
theory Dart_Parse_Table
  imports
    Dart_Rows_1 Dart_Rows_2 Dart_Rows_3 Dart_Rows_4 Dart_Rows_5 Dart_Rows_6 Dart_Rows_7 Dart_Rows_8
    Dart_Small_1 Dart_Small_2 Dart_Small_3 Dart_Small_4 Dart_Small_5 Dart_Small_6 Dart_Small_7 Dart_Small_8
    Dart_Small_9 Dart_Small_10
begin

text \<open>
  The parse tables as a whole: the large table with a row for each of the first \<^verbatim>\<open>LARGE_STATE_COUNT\<close>
  states, the flat small table with a group for each of the others, the entries of a state, and
  what holds of all of them.
\<close>

subsection \<open>The large table\<close>

definition ts_parse_table_rows :: "(TSStateId \<times> table_row) list" where
  "ts_parse_table_rows =
     ts_parse_table_rows_1 @ ts_parse_table_rows_2 @ ts_parse_table_rows_3 @
     ts_parse_table_rows_4 @ ts_parse_table_rows_5 @ ts_parse_table_rows_6 @
     ts_parse_table_rows_7 @ ts_parse_table_rows_8"

text \<open>The array: an entry that is not named is 0, outside the array there is none.\<close>

definition ts_parse_table :: "TSStateId \<Rightarrow> TSSymbol \<Rightarrow> nat option" where
  "ts_parse_table s y =
     (case map_of ts_parse_table_rows s of
        None \<Rightarrow> None
      | Some es \<Rightarrow>
          if y < SYMBOL_COUNT then Some (case map_of es y of None \<Rightarrow> 0 | Some v \<Rightarrow> v) else None)"

lemma rows_keys: "map fst ts_parse_table_rows = [0..<LARGE_STATE_COUNT]"
  by (simp add: ts_parse_table_rows_def row_keys_1 row_keys_2 row_keys_3 row_keys_4 row_keys_5 row_keys_6 row_keys_7 row_keys_8
      upt_join del: upt_rec_numeral)

lemma rows_ok: "list_all (\<lambda>(s, es). table_row_ok s es) ts_parse_table_rows"
  by (simp add: ts_parse_table_rows_def rows_ok_1 rows_ok_2 rows_ok_3 rows_ok_4 rows_ok_5 rows_ok_6 rows_ok_7 rows_ok_8)

lemma rows_dom: "map_of ts_parse_table_rows s \<noteq> None \<longleftrightarrow> s < LARGE_STATE_COUNT"
  using map_of_upt_keys [OF rows_keys, of s] by simp

subsection \<open>The small table\<close>

definition ts_small_parse_table_groups :: "small_group list" where
  "ts_small_parse_table_groups =
     ts_small_parse_table_part_1 @ ts_small_parse_table_part_2 @ ts_small_parse_table_part_3 @
     ts_small_parse_table_part_4 @ ts_small_parse_table_part_5 @ ts_small_parse_table_part_6 @
     ts_small_parse_table_part_7 @ ts_small_parse_table_part_8 @ ts_small_parse_table_part_9 @
     ts_small_parse_table_part_10"

fun section_words :: "small_section \<Rightarrow> nat list" where
  "section_words (v, count, ys) = v # count # ys"

fun small_group_words :: "small_group \<Rightarrow> nat list" where
  "small_group_words (off, count, secs) = count # concat (map section_words secs)"

text \<open>The flat array.\<close>

definition ts_small_parse_table :: "nat list" where
  "ts_small_parse_table = concat (map small_group_words ts_small_parse_table_groups)"

lemma small_groups_run: "small_run LARGE_STATE_COUNT 0 ts_small_parse_table_groups STATE_COUNT 154331"
  unfolding ts_small_parse_table_groups_def
  by (rule small_run_append [OF small_part_1],
    rule small_run_append [OF small_part_2],
    rule small_run_append [OF small_part_3],
    rule small_run_append [OF small_part_4],
    rule small_run_append [OF small_part_5],
    rule small_run_append [OF small_part_6],
    rule small_run_append [OF small_part_7],
    rule small_run_append [OF small_part_8],
    rule small_run_append [OF small_part_9],
    rule small_part_10)

text \<open>What a run says of a state: its group is at the index of the map, and passed the check.\<close>

definition counts_ok :: "small_section list \<Rightarrow> bool" where
  "counts_ok secs \<longleftrightarrow> list_all (\<lambda>(v, count, ys). length ys = count) secs"

lemma sections_ok_counts: "sections_ok s secs \<Longrightarrow> counts_ok secs"
  by (fastforce simp: sections_ok_def counts_ok_def section_ok_def list_all_iff
      split: option.splits dest: spec [of _ "\<lambda>_. True"])

lemma section_size_words:
  "counts_ok secs \<Longrightarrow> length (concat (map section_words secs)) = sum_list (map section_size secs)"
  by (induction secs) (auto simp: counts_ok_def)

lemmas sections_ok_size = section_size_words [OF sections_ok_counts]

lemma small_run_length:
  "small_run s n gs t k \<Longrightarrow> k = n + length (concat (map small_group_words gs)) \<and> t = s + length gs"
proof (induction s n gs t k rule: small_run.induct)
  case (2 s n off count secs gs t k)
  then have "sections_ok s secs" "small_run (Suc s) (Suc n + sum_list (map section_size secs)) gs t k" by auto
  with 2 sections_ok_size [of s secs] show ?case by auto
qed simp

lemma small_run_group:
  assumes "small_run s n gs t k" and "s \<le> p" and "p < t"
  shows "\<exists>i secs. ts_small_parse_table_map (SMALL_STATE p) = Some i \<and> sections_ok p secs \<and> n \<le> i \<and>
    gs ! (p - s) = (i, length secs, secs) \<and>
    (\<exists>rest. drop (i - n) (concat (map small_group_words gs)) = length secs # concat (map section_words secs) @ rest)"
  using assms
proof (induction s n gs t k rule: small_run.induct)
  case (2 s n off count secs gs t k)
  then have g: "off = n" "ts_small_parse_table_map (SMALL_STATE s) = Some n" "length secs = count"
    "sections_ok s secs" "small_run (Suc s) (Suc n + sum_list (map section_size secs)) gs t k"
    by auto
  show ?case
  proof (cases "p = s")
    case True
    with g show ?thesis by auto
  next
    case False
    let ?n = "Suc n + sum_list (map section_size secs)"
    from False 2(1) [OF g(5)] 2(3,4) obtain i secs' rest where
      i: "ts_small_parse_table_map (SMALL_STATE p) = Some i" "sections_ok p secs'" "?n \<le> i"
        "gs ! (p - Suc s) = (i, length secs', secs')"
        "drop (i - ?n) (concat (map small_group_words gs)) =
          length secs' # concat (map section_words secs') @ rest"
      by auto
    have "i - n = length (small_group_words (off, count, secs)) + (i - ?n)"
      using i(3) sections_ok_size [OF g(4)] by simp
    then have "drop (i - n) (concat (map small_group_words ((off, count, secs) # gs))) =
        drop (i - ?n) (concat (map small_group_words gs))"
      by (simp del: small_group_words.simps)
    moreover have "p - s = Suc (p - Suc s)" using False 2(3) by simp
    ultimately show ?thesis using i by (intro exI [of _ i] exI [of _ secs']) auto
  qed
qed simp

subsection \<open>Reading the small table\<close>

text \<open>The sections from an index of the flat array on: a value, a count and as many symbols.\<close>

fun read_sections :: "nat \<Rightarrow> nat list \<Rightarrow> (nat \<times> TSSymbol list) list" where
  "read_sections (Suc n) (v # count # xs) = (v, take count xs) # read_sections n (drop count xs)"
| "read_sections _ _ = []"

lemma read_section_words:
  "counts_ok secs \<Longrightarrow>
     read_sections (length secs) (concat (map section_words secs) @ rest) = map (\<lambda>(v, count, ys). (v, ys)) secs"
  by (induction secs) (auto simp: counts_ok_def)

definition small_sections :: "TSStateId \<Rightarrow> (nat \<times> TSSymbol list) list" where
  "small_sections s =
     (case ts_small_parse_table_map (SMALL_STATE s) of
        None \<Rightarrow> []
      | Some i \<Rightarrow> read_sections (ts_small_parse_table ! i) (drop (Suc i) ts_small_parse_table))"

text \<open>The entries of a state: its row of the large table or its group of the small one.\<close>

definition state_entries :: "TSStateId \<Rightarrow> table_row" where
  "state_entries s =
     (if s < LARGE_STATE_COUNT then (case map_of ts_parse_table_rows s of None \<Rightarrow> [] | Some es \<Rightarrow> es)
      else concat (map (\<lambda>(v, ys). map (\<lambda>y. (y, v)) ys) (small_sections s)))"

lemma row_entries: "(s, es) \<in> set ts_parse_table_rows \<Longrightarrow> state_entries s = es"
  using rows_keys rows_dom [of s] by (simp add: state_entries_def)

text \<open>The symbols a state has entries for.\<close>

definition has_entry :: "TSStateId \<Rightarrow> TSSymbol \<Rightarrow> bool" where
  "has_entry s X \<longleftrightarrow> X \<in> fst ` set (state_entries s)"

lemma small_state_group:
  assumes "LARGE_STATE_COUNT \<le> s" and "s < STATE_COUNT"
  obtains i secs rest where "ts_small_parse_table_map (SMALL_STATE s) = Some i" "sections_ok s secs"
    "ts_small_parse_table_groups ! SMALL_STATE s = (i, length secs, secs)"
    "drop i ts_small_parse_table = length secs # concat (map section_words secs) @ rest"
  using small_run_group [OF small_groups_run assms] by (auto simp: ts_small_parse_table_def)

lemma small_sections_group:
  assumes "drop i ts_small_parse_table = length secs # concat (map section_words secs) @ rest"
    and "ts_small_parse_table_map (SMALL_STATE s) = Some i" and "counts_ok secs"
  shows "small_sections s = map (\<lambda>(v, count, ys). (v, ys)) secs"
    and "ts_small_parse_table ! i = length secs"
proof -
  have "i < length ts_small_parse_table" using assms(1) by (metis drop_all linorder_not_less list.distinct(1))
  then have "ts_small_parse_table ! i = length secs"
    "drop (Suc i) ts_small_parse_table = concat (map section_words secs) @ rest"
    using assms(1) by (simp_all flip: Cons_nth_drop_Suc)
  with read_section_words [OF assms(3), of rest] assms(2) show
    "small_sections s = map (\<lambda>(v, count, ys). (v, ys)) secs" "ts_small_parse_table ! i = length secs"
    by (simp_all add: small_sections_def)
qed

text \<open>The entries of a state whose group is known by its index.\<close>

lemma small_group_entries:
  assumes "(i, count, secs) \<in> set ts_small_parse_table_groups" and "LARGE_STATE_COUNT \<le> s"
    and "ts_small_parse_table_map (SMALL_STATE s) = Some i"
  shows "state_entries s = concat (map (\<lambda>(v, count, ys). map (\<lambda>y. (y, v)) ys) secs)"
proof -
  from assms(1) obtain j where j: "j < length ts_small_parse_table_groups"
    "ts_small_parse_table_groups ! j = (i, count, secs)"
    by (metis in_set_conv_nth)
  define p where "p = LARGE_STATE_COUNT + j"
  from j(1) small_run_length [OF small_groups_run] have p: "LARGE_STATE_COUNT \<le> p" "p < STATE_COUNT"
    "SMALL_STATE p = j" by (simp_all add: p_def)
  from small_state_group [OF p(1,2)] p(3) j(2) obtain rest where
    "counts_ok secs" "drop i ts_small_parse_table = length secs # concat (map section_words secs) @ rest"
    using sections_ok_counts by (metis prod.inject)
  then have "small_sections s = map (\<lambda>(v, count, ys). (v, ys)) secs"
    using small_sections_group(1) assms(3) by blast
  with assms(2) show ?thesis by (auto simp: state_entries_def intro!: arg_cong [of _ _ concat])
qed

lemma state_entry_ok:
  assumes "ts_lex_modes s = Some m" and "(y, v) \<in> set (state_entries s)"
  shows "entry_ok m (has_entry s) s y v"
proof (cases "s < LARGE_STATE_COUNT")
  case True
  with rows_dom [of s] obtain es where es: "map_of ts_parse_table_rows s = Some es" by blast
  with True have e: "state_entries s = es" by (simp add: state_entries_def)
  then have "all_given (has_entry s) es"
    by (auto simp: all_given_def given_def has_entry_def list_all_iff intro: rev_image_eqI)
  with es map_of_list_all [OF rows_ok, of s es] assms e show ?thesis
    by (auto simp: table_row_ok_def list_all_iff)
next
  case False
  have s: "LARGE_STATE_COUNT \<le> s" "s < STATE_COUNT" using False lex_modes_dom [of s] assms(1) by simp_all
  from small_state_group [OF s] obtain i secs rest where
    g: "ts_small_parse_table_map (SMALL_STATE s) = Some i" "sections_ok s secs"
      "drop i ts_small_parse_table = length secs # concat (map section_words secs) @ rest"
    by metis
  have e: "set (state_entries s) = {(y, v). \<exists>count ys. (v, count, ys) \<in> set secs \<and> y \<in> set ys}"
    using False
    by (force simp: state_entries_def small_sections_group(1) [OF g(3,1) sections_ok_counts [OF g(2)]])
  have "list_all (\<lambda>(v, count, ys). list_all (has_entry s) ys) secs"
    by (force simp: list_all_iff has_entry_def e)
  with g(2) assms(1) have "list_all (section_ok m (has_entry s) s) secs" by (simp add: sections_ok_def)
  with e assms(2) show ?thesis by (auto simp: list_all_iff section_ok_def)
qed

subsection \<open>Properties of the tables\<close>

text \<open>
  C17. The flat small table can be read back: for every state from \<^verbatim>\<open>LARGE_STATE_COUNT\<close> on the map gives
  an index of the array, and the count, values and symbols found there by counting are those of the
  group the initialiser writes for the state, whose designated index is the one in the map.
\<close>

theorem small_table_roundtrip:
  assumes "LARGE_STATE_COUNT \<le> s" and "s < STATE_COUNT"
  shows "\<exists>i count secs. ts_small_parse_table_map (SMALL_STATE s) = Some i \<and>
    (i, count, secs) = ts_small_parse_table_groups ! SMALL_STATE s \<and>
    ts_small_parse_table ! i = count \<and> count = length secs \<and>
    small_sections s = map (\<lambda>(v, count, ys). (v, ys)) secs"
proof -
  from small_state_group [OF assms] obtain i secs rest where
    g: "ts_small_parse_table_map (SMALL_STATE s) = Some i" "sections_ok s secs"
      "ts_small_parse_table_groups ! SMALL_STATE s = (i, length secs, secs)"
      "drop i ts_small_parse_table = length secs # concat (map section_words secs) @ rest" .
  from small_sections_group [OF g(4,1) sections_ok_counts [OF g(2)]] g(1,3) show ?thesis by auto
qed

theorem small_table_roundtrip_witness:
  "\<exists>i count secs. ts_small_parse_table_map (SMALL_STATE 3576) = Some i \<and>
    (i, count, secs) = ts_small_parse_table_groups ! SMALL_STATE 3576 \<and> ts_small_parse_table ! i = length secs"
  using small_table_roundtrip [of 3576] by auto

text \<open>
  C5. A driver that follows the tables stays inside them. In every state, whatever entry the tables
  have for a symbol: for a non-terminal it is a state of the tables, and for a terminal the index of
  the header of a group in \<^verbatim>\<open>ts_parse_actions\<close>, which is followed by as many actions as it counts; a
  shift among them goes to a state of the tables, and a reduction builds a non-terminal with a
  production of the language, from no more children than an alias row has.
\<close>

theorem parse_tables_closed:
  assumes "s < STATE_COUNT" and "(y, v) \<in> set (state_entries s)"
  shows "if y < TOKEN_COUNT
    then \<exists>count reusable. ts_parse_actions ! v = ENTRY count reusable \<and> v + count < length ts_parse_actions \<and>
      (\<forall>j < count. case ts_parse_actions ! (v + Suc j) of
          ENTRY _ _ \<Rightarrow> False
        | ACTION (SHIFT t) \<Rightarrow> t < STATE_COUNT
        | ACTION (SHIFT_REPEAT t) \<Rightarrow> t < STATE_COUNT
        | ACTION (REDUCE z children _ p) \<Rightarrow> TOKEN_COUNT \<le> z \<and> z < SYMBOL_COUNT \<and>
            p < PRODUCTION_ID_COUNT \<and> children \<le> MAX_ALIAS_SEQUENCE_LENGTH
        | ACTION _ \<Rightarrow> True)
    else y < SYMBOL_COUNT \<and> v < STATE_COUNT"
proof -
  from assms(1) lex_modes_dom [of s] obtain m where m: "ts_lex_modes s = Some m" by blast
  note ok = state_entry_ok [OF m assms(2)]
  show ?thesis
  proof (cases "y < TOKEN_COUNT")
    case False
    with ok assms(1) show ?thesis using lr_items_dom [of v]
      by (auto simp: entry_ok_def state_needs_def split: option.splits)
  next
    case True
    with ok obtain count reusable actions where
      g: "(v, count, reusable, actions) \<in> set ts_parse_action_groups"
      by (auto simp: entry_ok_def group_needs_def)
    note layout = action_group_layout [OF g]
    have "action_ok a" if "a \<in> set actions" for a
      using actions_ok_all g that by (auto simp: list_all_iff group_ok_def)
    then have "action_ok (actions ! j)" if "j < count" for j
      using layout that by (metis nth_mem)
    then have "case ts_parse_actions ! (v + Suc j) of
          ENTRY _ _ \<Rightarrow> False
        | ACTION (SHIFT t) \<Rightarrow> t < STATE_COUNT
        | ACTION (SHIFT_REPEAT t) \<Rightarrow> t < STATE_COUNT
        | ACTION (REDUCE z children _ p) \<Rightarrow> TOKEN_COUNT \<le> z \<and> z < SYMBOL_COUNT \<and>
            p < PRODUCTION_ID_COUNT \<and> children \<le> MAX_ALIAS_SEQUENCE_LENGTH
        | ACTION _ \<Rightarrow> True" if "j < count" for j
      using layout that by (cases "actions ! j") fastforce+
    moreover have "ts_parse_actions ! v = ENTRY count reusable" "v + count < length ts_parse_actions"
      using layout by simp_all
    ultimately show ?thesis unfolding if_P [OF True] by blast
  qed
qed

theorem parse_tables_closed_witness:
  "\<exists>count reusable. ts_parse_actions ! 19 = ENTRY count reusable \<and> 19 + count < length ts_parse_actions"
proof -
  have "(Suc 0, ts_parse_table_1) \<in> set ts_parse_table_rows"
    by (simp add: ts_parse_table_rows_def ts_parse_table_rows_1_def)
  moreover have "(anon_sym_AT, 19) \<in> set ts_parse_table_1" by (simp add: ts_parse_table_1_def)
  ultimately have "(anon_sym_AT, 19) \<in> set (state_entries 1)" using row_entries by simp
  from parse_tables_closed [OF _ this] show ?thesis by auto
qed

subsection \<open>What the lexers deliver where the parser expects it\<close>

context tslexer
begin

lemma scan_found:
  assumes "scanned row (codes w) = Some i" and "length w < 2 ^ 32"
    and "valid l" and "start l = rest l" and "rest l = codes w"
  shows "\<exists>x. external_scanner_scan ops p l row = Some (True, x) \<and> result_symbol x = i"
  using scan_scanned [OF tslexer_axioms assms(3,4), of p row] assms by auto

lemma scan_leaves:
  assumes "scanned row (codes w) = None" and "length w < 2 ^ 32"
    and "valid l" and "start l = rest l" and "rest l = codes w"
  shows "\<exists>x. external_scanner_scan ops p l row = Some (False, x)"
  using scan_scanned [OF tslexer_axioms assms(3,4), of p row] assms by auto

lemma scan_takes:
  assumes "\<forall>inp. scanned row (codes w @ inp) \<noteq> None" and "length (rest l) < 2 ^ 32"
    and "valid l" and "start l = rest l" and "rest l = codes w @ inp"
  shows "\<exists>x. external_scanner_scan ops p l row = Some (True, x)"
  using scan_scanned [OF tslexer_axioms assms(3,4,2), of p row] assms(1,5) by auto

lemma scan_misses:
  assumes "\<forall>inp i. scanned row inp = Some i \<longrightarrow> ts_external_scanner_symbol_map ! i \<noteq> y"
    and "valid l" and "start l = rest l" and "length (rest l) < 2 ^ 32"
  shows "\<exists>r x. external_scanner_scan ops p l row = Some (r, x) \<and>
    (r \<longrightarrow> ts_external_scanner_symbol_map ! result_symbol x \<noteq> y)"
  using scan_scanned [OF tslexer_axioms assms(2-4), of p row] assms(1)
  by (cases "scanned row (rest l)") auto

end

text \<open>
  C4. What the lexers deliver where the parser expects a terminal. Every entry a state has for a
  terminal is of one of these kinds, where the external scanner runs in the row of the lexer mode of
  the state, and before the main lexer.

  There is a text that the external scanner leaves alone and for which the main lexer returns the
  terminal and consumes it whole. Or there is a text that the scanner leaves alone, the main lexer
  returns as an identifier, the keyword capture token, and the keyword lexer returns as the terminal.
  Or the terminal is an external token that is valid in the row, and there is a text for which the
  scanner returns it. In these three cases the terminal can be delivered; the text may have to be the
  last of the file.

  The others are the entries that the scanner makes dead: a block comment in a state inside a
  string, or an external token in the error state 0, that is valid in the row but that the scanner
  returns on no input; and in the error state the openers of raw strings, which the main lexer would
  return, but of which the scanner takes every input that starts with one for a string text. The
  states without a mode expect the end of the file only.
\<close>

theorem parse_tables_lexable:
  assumes "tslexer ops valid rest start mark"
    and "ts_lex_modes s = Some m" and "(y, v) \<in> set (state_entries s)" and "y < TOKEN_COUNT"
    and "row = ts_external_scanner_states ! external_lex_state m"
  shows "if m = NO_LEX_MODE then y = ts_builtin_sym_end
    else (\<exists>w. \<forall>p l. valid l \<and> start l = rest l \<and> rest l = codes w \<longrightarrow>
        (\<exists>x. external_scanner_scan ops p l row = Some (False, x)) \<and>
        (\<exists>l'. ts_lex ops (lex_state m) l = Some (True, l') \<and> result_symbol l' = y \<and> mark l' = Some [])) \<or>
      (\<exists>w. \<forall>p l. valid l \<and> start l = rest l \<and> rest l = codes w \<longrightarrow>
        (\<exists>x. external_scanner_scan ops p l row = Some (False, x)) \<and>
        (\<exists>l' k. ts_lex ops (lex_state m) l = Some (True, l') \<and> result_symbol l' = sym_identifier \<and>
          mark l' = Some [] \<and>
          ts_lex_keywords ops 0 l = Some (True, k) \<and> result_symbol k = y \<and> mark k = Some [])) \<or>
      (\<exists>i < EXTERNAL_TOKEN_COUNT. row ! i \<and> ts_external_scanner_symbol_map ! i = y \<and>
        (\<exists>w. \<forall>p l. valid l \<and> start l = rest l \<and> rest l = codes w \<longrightarrow>
          (\<exists>x. external_scanner_scan ops p l row = Some (True, x) \<and> result_symbol x = i))) \<or>
      (s = 0 \<or> 2 < external_lex_state m \<and> y \<in> {sym__block_comment, sym__documentation_block_comment}) \<and>
        (\<exists>i < EXTERNAL_TOKEN_COUNT. row ! i \<and> ts_external_scanner_symbol_map ! i = y) \<and>
        (\<forall>p l. valid l \<and> start l = rest l \<and> length (rest l) < 2 ^ 32 \<longrightarrow>
          (\<exists>r x. external_scanner_scan ops p l row = Some (r, x) \<and>
            (r \<longrightarrow> ts_external_scanner_symbol_map ! result_symbol x \<noteq> y))) \<or>
      s = 0 \<and> y \<in> {anon_sym_r_DQUOTE, anon_sym_r_SQUOTE, anon_sym_r_DQUOTE_DQUOTE_DQUOTE,
          anon_sym_r_SQUOTE_SQUOTE_SQUOTE} \<and>
        (\<exists>w. (\<forall>l. valid l \<and> start l = rest l \<and> rest l = codes w \<longrightarrow>
            (\<exists>l'. ts_lex ops (lex_state m) l = Some (True, l') \<and> result_symbol l' = y \<and> mark l' = Some [])) \<and>
          (\<forall>p l inp. valid l \<and> start l = rest l \<and> rest l = codes w @ inp \<and> length (rest l) < 2 ^ 32 \<longrightarrow>
            (\<exists>x. external_scanner_scan ops p l row = Some (True, x))))"
proof (cases "m = NO_LEX_MODE")
  case True
  with state_entry_ok [OF assms(2,3)] assms(4) show ?thesis by (simp add: entry_ok_def expects_def)
next
  case False
  note mode = mode_used(1) [OF assms(2) False] and run = lexes_run [OF assms(1)]
    and scan = tslexer.scan_found [OF assms(1)] tslexer.scan_leaves [OF assms(1)]
      tslexer.scan_misses [OF assms(1)] tslexer.scan_takes [OF assms(1)]
  from state_entry_ok [OF assms(2,3)] assms(4,5) False
  consider (lexed) w where "lexes (lex_state m) w y" "scanned row (codes w) = None" "length w < 2 ^ 32"
    | (captured) w where "captured (lex_state m) w y" "scanned row (codes w) = None" "length w < 2 ^ 32"
    | (found) "found m y" | (masked) "masked m y" | (shadowed) "shadowed m y"
    by (auto simp: entry_ok_def expects_def)
  then show ?thesis
  proof cases
    case lexed
    show ?thesis unfolding if_not_P [OF False]
      by (rule disjI1, rule exI [of _ w]) (use scan(2) [OF lexed(2,3)] run [OF _ _ mode lexed(1)] in blast)
  next
    case captured
    then have w: "lexes (lex_state m) w sym_identifier" "map_of dart_keywords w = Some y"
      by (simp_all add: captured_def)
    show ?thesis unfolding if_not_P [OF False]
      by (rule disjI2, rule disjI1, rule exI [of _ w])
        (use scan(2) [OF captured(2,3)] run [OF _ _ mode w(1)]
          ts_lex_keywords_self [OF assms(1) _ _ w(2)] in blast)
  next
    case found
    then obtain w i where "length w < 2 ^ 32" "scanned row (codes w) = Some i"
      "i < EXTERNAL_TOKEN_COUNT" "row ! i" "ts_external_scanner_symbol_map ! i = y"
      by (auto simp: found_def assms(5))
    with scan(1) [OF this(2,1)] show ?thesis unfolding if_not_P [OF False]
      by (intro disjI2 [OF disjI2 [OF disjI1]]) blast
  next
    case masked
    then have "s = 0 \<or> 2 < external_lex_state m \<and> y \<in> {sym__block_comment, sym__documentation_block_comment}"
      "\<exists>i < EXTERNAL_TOKEN_COUNT. row ! i \<and> ts_external_scanner_symbol_map ! i = y"
      "\<forall>inp i. scanned row inp = Some i \<longrightarrow> ts_external_scanner_symbol_map ! i \<noteq> y"
      using error_row_state [OF assms(2)] by (auto simp: masked_def assms(5))
    with scan(3) [OF this(3)] show ?thesis unfolding if_not_P [OF False]
      by (intro disjI2 [OF disjI2 [OF disjI2 [OF disjI1]]] conjI) blast+
  next
    case shadowed
    then obtain w where w: "lexes (lex_state m) w y" "\<forall>inp. scanned row (codes w @ inp) \<noteq> None"
      by (auto simp: shadowed_def assms(5))
    have y: "s = 0" "y \<in> {anon_sym_r_DQUOTE, anon_sym_r_SQUOTE, anon_sym_r_DQUOTE_DQUOTE_DQUOTE,
        anon_sym_r_SQUOTE_SQUOTE_SQUOTE}"
      using shadowed error_row_state [OF assms(2)] by (auto simp: shadowed_def)
    show ?thesis unfolding if_not_P [OF False]
      by (intro disjI2 [OF disjI2 [OF disjI2 [OF disjI2]]] conjI y exI [of _ w])
        (use run [OF _ _ mode w(1)] scan(4) [OF w(2)] in blast)+
  qed
qed

theorem parse_tables_lexable_witness:
  "(\<exists>w x l'. external_scanner_scan buf_ops None (buf_init (codes w)) (ts_external_scanner_states ! 2) = Some (False, x) \<and>
     ts_lex buf_ops 100 (buf_init (codes w)) = Some (True, l') \<and> result_symbol l' = anon_sym_AT) \<or>
   (\<exists>w x k. external_scanner_scan buf_ops None (buf_init (codes w)) (ts_external_scanner_states ! 2) = Some (False, x) \<and>
     ts_lex_keywords buf_ops 0 (buf_init (codes w)) = Some (True, k) \<and> result_symbol k = anon_sym_AT)"
proof -
  have "(Suc 0, ts_parse_table_1) \<in> set ts_parse_table_rows"
    by (simp add: ts_parse_table_rows_def ts_parse_table_rows_1_def)
  moreover have "(anon_sym_AT, 19) \<in> set ts_parse_table_1" by (simp add: ts_parse_table_1_def)
  ultimately have e: "(anon_sym_AT, 19) \<in> set (state_entries 1)" using row_entries by simp
  have m: "ts_lex_modes 1 = Some (LM 100 2)" by simp
  have l: "buf_valid (buf_init i)" "buf_from (buf_init i) = buf_rest (buf_init i)" "buf_rest (buf_init i) = i"
    for i by simp_all
  have no: "ts_external_scanner_symbol_map ! i \<noteq> anon_sym_AT" if "i < EXTERNAL_TOKEN_COUNT" for i
    using that by (simp add: external_symbol_map_eq del: upt_rec_numeral)
  have "LM 100 2 \<noteq> NO_LEX_MODE" by simp
  from parse_tables_lexable [OF buf.tslexer_axioms m e _ refl, unfolded if_not_P [OF this]]
  consider w where "\<forall>p l. buf_valid l \<and> buf_from l = buf_rest l \<and> buf_rest l = codes w \<longrightarrow>
      (\<exists>x. external_scanner_scan buf_ops p l (ts_external_scanner_states ! 2) = Some (False, x)) \<and>
      (\<exists>l'. ts_lex buf_ops 100 l = Some (True, l') \<and> result_symbol l' = anon_sym_AT \<and> buf_mark l' = Some [])"
    | w where "\<forall>p l. buf_valid l \<and> buf_from l = buf_rest l \<and> buf_rest l = codes w \<longrightarrow>
      (\<exists>x. external_scanner_scan buf_ops p l (ts_external_scanner_states ! 2) = Some (False, x)) \<and>
      (\<exists>l' k. ts_lex buf_ops 100 l = Some (True, l') \<and> result_symbol l' = sym_identifier \<and>
        buf_mark l' = Some [] \<and>
        ts_lex_keywords buf_ops 0 l = Some (True, k) \<and> result_symbol k = anon_sym_AT \<and> buf_mark k = Some [])"
    using no by auto
  then show ?thesis by cases (use l in blast)+
qed

end
