(* ===== verification/Dart_Stack.thy ===== *)
theory Dart_Stack
  imports Dart_Parse_Table
begin

text \<open>
  The stacks of states the parse tables lead to. The driver that keeps the stack is not part of the
  sources; what a shift and a reduction do to the states on it is fixed by the tables: a shift
  pushes the state it names, a reduction removes as many states as the production has children and
  pushes the state the table gives for the non-terminal in the state it uncovers. Comments are
  extras: their state is the one they were read in, and they are not counted as children.
\<close>

subsection \<open>Steps\<close>

text \<open>The actions of a state for a terminal.\<close>

definition state_actions :: "TSStateId \<Rightarrow> TSSymbol \<Rightarrow> TSParseAction list \<Rightarrow> bool" where
  "state_actions s y actions \<longleftrightarrow> y < TOKEN_COUNT \<and>
     (\<exists>v count reusable. (y, v) \<in> set (state_entries s) \<and>
        (v, count, reusable, actions) \<in> set ts_parse_action_groups)"

inductive lr_step :: "TSStateId list \<Rightarrow> TSStateId list \<Rightarrow> bool" where
  shift: "state_actions s y actions \<Longrightarrow> SHIFT t \<in> set actions \<or> SHIFT_REPEAT t \<in> set actions \<Longrightarrow>
    lr_step (s # ss) (t # s # ss)"
| reduce: "state_actions s y actions \<Longrightarrow> REDUCE X n precedence p \<in> set actions \<Longrightarrow>
    drop n (s # ss) = q # qs \<Longrightarrow> (X, t) \<in> set (state_entries q) \<Longrightarrow>
    lr_step (s # ss) (if is_extra X \<and> t = q then q # qs else t # q # qs)"

inductive_cases lr_stepE: "lr_step st st'"

subsection \<open>The invariant\<close>

text \<open>
  The start state is at the bottom of the stack and nowhere else, every state is one of the tables and
  finds what its items say: so many states further down there is a state with an entry for the
  non-terminal, or the state below is the start state.
\<close>

fun item_met :: "TSStateId list \<Rightarrow> lr_item \<Rightarrow> bool" where
  "item_met st (Item n X) \<longleftrightarrow> n < length st \<and> has_entry (st ! n) X"
| "item_met st Bottom \<longleftrightarrow> 1 < length st \<and> st ! 1 = 1"

fun stack_inv :: "TSStateId list \<Rightarrow> bool" where
  "stack_inv [] \<longleftrightarrow> True"
| "stack_inv (s # ss) \<longleftrightarrow> s < STATE_COUNT \<and> (if ss = [] then s = 1 else 1 < s) \<and>
     (\<forall>it. has_item s it \<longrightarrow> item_met (s # ss) it) \<and> stack_inv ss"

lemma stack_inv_drop: "stack_inv st \<Longrightarrow> stack_inv (drop n st)"
proof (induction st arbitrary: n)
  case (Cons s st)
  then show ?case by (cases n) (auto simp del: One_nat_def)
qed simp

lemma stack_inv_item: "stack_inv (s # ss) \<Longrightarrow> has_item s it \<Longrightarrow> item_met (s # ss) it"
  by (simp del: item_met.simps)

lemma stack_inv_needed:
  assumes "stack_inv (s # ss)" and "needed (has_entry s) s n X"
  shows "n \<le> length ss \<and> has_entry ((s # ss) ! n) X"
proof (cases "n = 0")
  case False
  with stack_inv_item [OF assms(1)] assms(2) have "item_met (s # ss) (Item n X)"
    by (simp add: needed_def del: item_met.simps)
  then show ?thesis by simp
qed (use assms in \<open>simp add: needed_def\<close>)

lemma stack_inv_push:
  assumes "stack_inv (s # ss)" and "state_needs (has_entry s) s t"
  shows "stack_inv (t # s # ss)"
proof -
  from assms(2) obtain its where its: "lr_items t = Some its" "list_all (item_needs (has_entry s) s) its"
    by (auto simp: state_needs_def split: option.splits)
  have "item_met (t # s # ss) it" if "has_item t it" for it
  proof -
    from that its have needs: "item_needs (has_entry s) s it" by (auto simp: has_item_def list_all_iff)
    show ?thesis
    proof (cases it)
      case (Item n X)
      with needs have "0 < n" "needed (has_entry s) s (n - 1) X" by simp_all
      with stack_inv_needed [OF assms(1), of "n - 1" X] Item show ?thesis by (cases n) auto
    qed (use needs in simp)
  qed
  moreover have "2 \<le> t" "t < STATE_COUNT" using lr_items_dom [OF its(1)] by simp_all
  ultimately show ?thesis using assms(1) by auto
qed

lemma stack_inv_start: "stack_inv [1]"
proof -
  have "lr_items 1 = None" using lr_items_dom [of 1] by (cases "lr_items 1") auto
  then show ?thesis by (simp add: has_item_def)
qed

text \<open>What the check says of the actions of a state.\<close>

lemma action_needed:
  assumes "s < STATE_COUNT" and "state_actions s y actions" and "a \<in> set actions"
  shows "action_needs (has_entry s) s a \<and> action_ok a"
proof -
  from assms(1) lex_modes_dom [of s] obtain m where m: "ts_lex_modes s = Some m" by blast
  from assms(2) obtain v count reusable where v: "y < TOKEN_COUNT" "(y, v) \<in> set (state_entries s)"
    "(v, count, reusable, actions) \<in> set ts_parse_action_groups"
    by (auto simp: state_actions_def)
  with state_entry_ok [OF m v(2)] have "group_needs (has_entry s) s v" by (simp add: entry_ok_def)
  with v(3) assms(3) have "action_needs (has_entry s) s a" by (simp add: group_needs_eq list_all_iff)
  moreover have "action_ok a" using actions_ok_all v(3) assms(3) by (auto simp: list_all_iff group_ok_def)
  ultimately show ?thesis ..
qed

lemma reduction_finds_goto:
  assumes "stack_inv (s # ss)" and "state_actions s y actions" and "REDUCE X n precedence p \<in> set actions"
  obtains q qs t where "drop n (s # ss) = q # qs" "(X, t) \<in> set (state_entries q)"
proof -
  have "needed (has_entry s) s n X" using action_needed [OF _ assms(2,3)] assms(1) by simp
  from stack_inv_needed [OF assms(1) this] have "n \<le> length ss" "has_entry ((s # ss) ! n) X" by simp_all
  then have "drop n (s # ss) = (s # ss) ! n # drop (Suc n) (s # ss)"
    using Cons_nth_drop_Suc [of n "s # ss"] by simp
  with \<open>has_entry ((s # ss) ! n) X\<close> that show thesis by (auto simp: has_entry_def)
qed

lemma goto_push:
  assumes "stack_inv (q # qs)" and "(X, t) \<in> set (state_entries q)" and "TOKEN_COUNT \<le> X"
  shows "is_extra X \<and> t = q \<or> stack_inv (t # q # qs)"
proof -
  from assms(1) lex_modes_dom [of q] obtain m where m: "ts_lex_modes q = Some m" by auto
  from state_entry_ok [OF m assms(2)] assms(3) stack_inv_push [OF assms(1)] show ?thesis
    by (auto simp: entry_ok_def)
qed

lemma stack_inv_step: "lr_step st st' \<Longrightarrow> stack_inv st \<Longrightarrow> stack_inv st'"
proof (induction rule: lr_step.induct)
  case (shift s y actions t ss)
  then have "state_needs (has_entry s) s t" using action_needed [OF _ shift(1)] by fastforce
  with shift(3) show ?case by (rule stack_inv_push)
next
  case (reduce s y actions X n precedence p ss q qs t)
  have "stack_inv (q # qs)" using stack_inv_drop [OF reduce(5), of n] unfolding reduce(3) .
  moreover have "TOKEN_COUNT \<le> X" using action_needed [OF _ reduce(1,2)] reduce(5) by simp
  ultimately show ?case using goto_push [OF _ reduce(4)] by (simp only: split: if_split) blast
qed

lemma stack_inv_reachable: "lr_step\<^sup>*\<^sup>* [1] st \<Longrightarrow> stack_inv st"
  by (induction rule: rtranclp_induct) (use stack_inv_start stack_inv_step in auto)

text \<open>The start state: at the end of an empty file it reduces nothing to a program.\<close>

lemma start_row: "(1, ts_parse_table_1) \<in> set ts_parse_table_rows"
  by (simp add: ts_parse_table_rows_def ts_parse_table_rows_1_def)

lemma start_entry: "(ts_builtin_sym_end, 13) \<in> set (state_entries 1)"
  unfolding row_entries [OF start_row] by (simp add: ts_parse_table_1_def)

lemma start_actions: "state_actions 1 ts_builtin_sym_end [REDUCE sym_program 0 0 0]"
proof -
  have "(13, 1, True, [REDUCE sym_program 0 0 0]) \<in> set ts_parse_action_groups"
    by (simp add: ts_parse_action_groups_def ts_parse_actions_1_def)
  with start_entry show ?thesis by (auto simp: state_actions_def)
qed

text \<open>
  C2. The parse tables never leave a driver without a next state. On every stack of states that
  shifts and reductions by the tables lead to from the start state, whatever reduction the state on
  top has for some terminal: the stack is deep enough for its children, and the state uncovered has
  an entry for the non-terminal, which is a state of the tables, so the reduction is a step.
\<close>

theorem reductions_find_goto:
  assumes "lr_step\<^sup>*\<^sup>* [1] (s # ss)" and "state_actions s y actions"
    and "REDUCE X n precedence p \<in> set actions"
  shows "\<exists>q qs t. drop n (s # ss) = q # qs \<and> (X, t) \<in> set (state_entries q) \<and> t < STATE_COUNT \<and>
    lr_step (s # ss) (if is_extra X \<and> t = q then q # qs else t # q # qs)"
proof -
  note inv = stack_inv_reachable [OF assms(1)]
  obtain q qs t where g: "drop n (s # ss) = q # qs" "(X, t) \<in> set (state_entries q)"
    by (rule reduction_finds_goto [OF inv assms(2,3)])
  note step = lr_step.reduce [OF assms(2,3) g]
  from stack_inv_step [OF step inv] have "t < STATE_COUNT" by (auto split: if_splits)
  with g step show ?thesis by blast
qed

theorem reductions_find_goto_witness:
  "\<exists>t. (sym_program, t) \<in> set (state_entries 1) \<and> t < STATE_COUNT \<and> lr_step [1] [t, 1]"
  using reductions_find_goto [OF rtranclp.rtrancl_refl start_actions, of sym_program 0 0 0]
  by (fastforce simp: is_extra_def)

text \<open>The state a program leads to: it accepts at the end of the file, and reads comments.\<close>

lemma accept_entries:
  "state_entries accept_state =
     [(anon_sym_SLASH_SLASH, 3), (anon_sym_SLASH_STAR, 5), (anon_sym_SLASH_SLASH_SLASH, 7),
      (sym__block_comment, 9), (sym__documentation_block_comment, 11), (ts_builtin_sym_end, 6949),
      (sym_comment, accept_state), (sym_documentation_comment, accept_state)]"
proof -
  have "(151045, 7, [(3, 1, [anon_sym_SLASH_SLASH]), (5, 1, [anon_sym_SLASH_STAR]),
      (7, 1, [anon_sym_SLASH_SLASH_SLASH]), (9, 1, [sym__block_comment]),
      (11, 1, [sym__documentation_block_comment]), (6949, 1, [ts_builtin_sym_end]),
      (accept_state, 2, [sym_comment, sym_documentation_comment])]) \<in> set ts_small_parse_table_groups"
    by (simp add: ts_small_parse_table_groups_def ts_small_parse_table_part_10_def ts_small_parse_table_956_def)
  from small_group_entries [OF this, of accept_state] show ?thesis by simp
qed

lemma comment_groups:
  assumes "(v, count, reusable, actions) \<in> set ts_parse_action_groups" and "v \<in> {3, 5, 7, 9, 11}"
  shows "\<exists>t. actions = [SHIFT t]"
proof -
  have "(3, 1, False, [SHIFT 3553]) \<in> set ts_parse_action_groups"
    "(5, 1, True, [SHIFT 3550]) \<in> set ts_parse_action_groups"
    "(7, 1, True, [SHIFT 3545]) \<in> set ts_parse_action_groups"
    "(9, 1, True, [SHIFT 3574]) \<in> set ts_parse_action_groups"
    "(11, 1, True, [SHIFT 3572]) \<in> set ts_parse_action_groups"
    by (simp_all add: ts_parse_action_groups_def ts_parse_actions_1_def)
  with assms(2) obtain t count' reusable' where "(v, count', reusable', [SHIFT t]) \<in> set ts_parse_action_groups"
    by blast
  from eq_key_imp_eq_value [OF groups_distinct assms(1) this] show ?thesis by simp
qed

text \<open>
  C3. The tables accept whole programs only. When the state on top of a stack that the tables lead to
  has the action \<^verbatim>\<open>ACCEPT_INPUT\<close> for some terminal, this is the end of the file, and the stack holds the
  start state and the state it goes to for a program, and nothing else; and no state of such a stack has the action \<^verbatim>\<open>RECOVER\<close>,
  which the error state alone has.
\<close>

theorem accepts_whole_program:
  assumes "lr_step\<^sup>*\<^sup>* [1] (s # ss)" and "state_actions s y actions" and "a \<in> set actions"
  shows "(a = ACCEPT_INPUT \<longrightarrow>
      y = ts_builtin_sym_end \<and> ss = [1] \<and> (sym_program, s) \<in> set (state_entries 1)) \<and> a \<noteq> RECOVER"
proof -
  note inv = stack_inv_reachable [OF assms(1)]
  have needs: "action_needs (has_entry s) s a" using action_needed [OF _ assms(2,3)] inv by simp
  have "s \<noteq> 0" using inv by (auto split: if_splits)
  moreover have "y = ts_builtin_sym_end \<and> ss = [1] \<and> (sym_program, s) \<in> set (state_entries 1)"
    if "a = ACCEPT_INPUT"
  proof -
    from needs that have s: "s = accept_state" "has_item s Bottom" by simp_all
    from stack_inv_item [OF inv s(2)] obtain rs where ss: "ss = 1 # rs" by (cases ss) auto
    from inv have "stack_inv (1 # rs)" unfolding ss stack_inv.simps(2) [of s] by blast
    then have "rs = []" by (cases rs) simp_all
    moreover have "(sym_program, accept_state) \<in> set (state_entries 1)"
      unfolding row_entries [OF start_row] by (simp add: ts_parse_table_1_def)
    moreover have "y = ts_builtin_sym_end"
    proof (rule ccontr)
      assume "y \<noteq> ts_builtin_sym_end"
      with assms(2) s(1) obtain v count reusable where
        "(v, count, reusable, actions) \<in> set ts_parse_action_groups" "v \<in> {3, 5, 7, 9, 11}"
        by (auto simp: state_actions_def accept_entries)
      from comment_groups [OF this] assms(3) that show False by auto
    qed
    ultimately show ?thesis using ss s(1) by blast
  qed
  ultimately show ?thesis using needs by auto
qed

lemma accept_actions: "state_actions accept_state ts_builtin_sym_end [ACCEPT_INPUT]"
proof -
  have "(6949, 1, True, [ACCEPT_INPUT]) \<in> set ts_parse_action_groups"
    by (simp add: ts_parse_action_groups_def ts_parse_actions_22_def)
  then show ?thesis by (auto simp: state_actions_def accept_entries)
qed

lemma accept_step: "lr_step [1] [accept_state, 1]"
proof -
  have e: "(sym_program, accept_state) \<in> set (state_entries 1)"
    unfolding row_entries [OF start_row] by (simp add: ts_parse_table_1_def)
  from lr_step.reduce [OF start_actions _ _ e, where ss = "[]"] show ?thesis by (simp add: is_extra_def)
qed

theorem accepts_whole_program_witness:
  "lr_step\<^sup>*\<^sup>* [1] [accept_state, 1] \<and> state_actions accept_state ts_builtin_sym_end [ACCEPT_INPUT] \<and>
     (sym_program, accept_state) \<in> set (state_entries 1)"
proof -
  have run: "lr_step\<^sup>*\<^sup>* [1] [accept_state, 1]" by (rule r_into_rtranclp) (rule accept_step)
  with accepts_whole_program [OF run accept_actions, of ACCEPT_INPUT] accept_actions show ?thesis by simp
qed

end
