(* ===== verification/Dart_Names.thy ===== *)
theory Dart_Names
  imports Dart_Symbols
begin

text \<open>
  The tables of \<^verbatim>\<open>parser.c\<close> that describe the grammar symbols: \<^verbatim>\<open>ts_symbol_names\<close>, the public symbol
  map \<^verbatim>\<open>ts_symbol_map\<close> and \<^verbatim>\<open>ts_symbol_metadata\<close>. Each is an array with designated initialisers, here
  a list of index and value, cut into blocks; an index outside the array is \<open>None\<close>.
\<close>

subsection \<open>Names\<close>

definition ts_symbol_names_1 :: "(TSSymbol \<times> string) list" where
  "ts_symbol_names_1 = [
     (ts_builtin_sym_end, ''end''), (sym_identifier, ''identifier''), (anon_sym_POUND, ''#''),
     (sym_decimal_integer_literal, ''decimal_integer_literal''),
     (sym_hex_integer_literal, ''hex_integer_literal''),
     (sym_decimal_floating_point_literal, ''decimal_floating_point_literal''),
     (anon_sym_true, ''true''), (anon_sym_false, ''false''), (anon_sym_DQUOTE, [CHR 0x22]),
     (anon_sym_SQUOTE, [CHR 0x27]),
     (anon_sym_DQUOTE_DQUOTE_DQUOTE, [CHR 0x22, CHR 0x22, CHR 0x22]),
     (anon_sym_SQUOTE_SQUOTE_SQUOTE, [CHR 0x27, CHR 0x27, CHR 0x27]),
     (anon_sym_r_DQUOTE, [CHR ''r'', CHR 0x22]), (anon_sym_DOLLAR, ''$''),
     (anon_sym_r_SQUOTE, [CHR ''r'', CHR 0x27]),
     (anon_sym_r_DQUOTE_DQUOTE_DQUOTE, [CHR ''r'', CHR 0x22, CHR 0x22, CHR 0x22]),
     (anon_sym_r_SQUOTE_SQUOTE_SQUOTE, [CHR ''r'', CHR 0x27, CHR 0x27, CHR 0x27]),
     (anon_sym_LBRACE, ''{''), (anon_sym_RBRACE, ''}''),
     (aux_sym__sub_string_test_token1, ''_sub_string_test_token1''),
     (sym__unused_escape_sequence, ''_unused_escape_sequence''), (anon_sym_LBRACK, ''[''),
     (anon_sym_COMMA, '',''), (anon_sym_RBRACK, '']''), (anon_sym_COLON, '':''),
     (anon_sym_null, ''null''), (anon_sym_LPAREN, ''(''), (anon_sym_RPAREN, '')''),
     (anon_sym_throw, ''throw''), (anon_sym_EQ, ''=''), (anon_sym_PLUS_EQ, ''+=''),
     (anon_sym_DASH_EQ, ''-=''), (anon_sym_STAR_EQ, ''*=''), (anon_sym_SLASH_EQ, ''/=''),
     (anon_sym_PERCENT_EQ, ''%=''), (anon_sym_TILDE_SLASH_EQ, ''~/=''),
     (anon_sym_LT_LT_EQ, ''<<=''), (anon_sym_GT_GT_EQ, ''>>=''),
     (anon_sym_GT_GT_GT_EQ, ''>>>=''), (anon_sym_AMP_EQ, ''&=''), (anon_sym_CARET_EQ, ''^=''),
     (anon_sym_PIPE_EQ, ''|=''), (anon_sym_QMARK_QMARK_EQ, ''??=''),
     (anon_sym_QMARK_QMARK, ''??''), (anon_sym_QMARK, ''?''),
     (sym_equality_operator, ''equality_operator''), (anon_sym_LT, ''<''), (anon_sym_GT, ''>''),
     (anon_sym_LT_EQ, ''<=''), (anon_sym_GT_EQ, ''>=''), (anon_sym_PIPE, ''|''),
     (anon_sym_CARET, ''^''), (anon_sym_AMP, ''&''), (anon_sym_LT_LT, ''<<''),
     (anon_sym_GT_GT, ''>>''), (anon_sym_GT_GT_GT, ''>>>''),
     (sym__additive_operator, ''_additive_operator''), (anon_sym_STAR, ''*''),
     (anon_sym_SLASH, ''/''), (anon_sym_PERCENT, ''%''), (anon_sym_TILDE_SLASH, ''~/''),
     (sym_increment_operator, ''increment_operator''), (anon_sym_DOT_DOT_DOT, ''...''),
     (sym_minus_operator, ''minus_operator''), (anon_sym_BANG, ''!''), (anon_sym_TILDE, ''~''),
     (anon_sym_await, ''await''), (anon_sym_is, ''is''), (anon_sym_as, ''as''),
     (anon_sym_DOT, ''.''), (anon_sym_QMARK_DOT, ''?.''), (anon_sym_DOT_DOT, ''..''),
     (anon_sym_QMARK_DOT_DOT, ''?..''), (anon_sym_extends, ''extends''), (anon_sym_SEMI, '';''),
     (anon_sym_switch, ''switch''), (anon_sym_EQ_GT, ''=>''), (anon_sym_when, ''when''),
     (anon_sym_default, ''default''), (anon_sym_do, ''do''), (anon_sym_while, ''while''),
     (anon_sym_continue, ''continue''), (anon_sym_yield, ''yield''),
     (anon_sym_return, ''return''), (anon_sym_on, ''on''), (anon_sym_try, ''try''),
     (anon_sym_catch, ''catch''), (anon_sym_finally, ''finally''), (anon_sym_if, ''if''),
     (anon_sym_case, ''case''), (anon_sym_else, ''else''), (anon_sym_for, ''for''),
     (anon_sym_in, ''in''), (anon_sym_AT, ''@''), (anon_sym_part, ''part''),
     (anon_sym_EQ_EQ, ''==''), (anon_sym_show, ''show''), (anon_sym_hide, ''hide''),
     (anon_sym_enum, ''enum''), (anon_sym_final, ''final''), (anon_sym_inline, ''inline''),
     (anon_sym_class, ''class''), (anon_sym_extension, ''extension''), (anon_sym_with, ''with''),
     (anon_sym_LBRACK_RBRACK, ''[]''), (anon_sym_LBRACK_RBRACK_EQ, ''[]=''),
     (sym_floating_point_type, ''floating_point_type''), (anon_sym_bool, ''bool''),
     (sym_void_type, ''void_type''), (anon_sym_var, ''var''), (anon_sym_async, ''async''),
     (anon_sym_async_STAR, ''async*''), (anon_sym_sync_STAR, ''sync*''),
     (anon_sym_POUND_BANG, ''#!''), (aux_sym_script_tag_token1, ''script_tag_token1''),
     (anon_sym_LF, [CHR 0x0A]), (anon_sym_library, ''library''),
     (sym_break_builtin, ''break_builtin''), (sym_assert_builtin, ''assert_builtin''),
     (sym_rethrow_builtin, ''rethrow_builtin''), (sym_part_of_builtin, ''part_of_builtin''),
     (anon_sym_covariant, ''covariant''), (anon_sym_deferred, ''deferred''),
     (anon_sym_dynamic, ''dynamic''), (anon_sym_export, ''export''),
     (anon_sym_factory, ''factory''), (anon_sym_Function, ''Function''), (anon_sym_get, ''get''),
     (anon_sym_native, ''native''), (anon_sym_implements, ''implements''),
     (anon_sym_import, ''import''), (anon_sym_interface, ''interface''),
     (anon_sym_base, ''base''), (anon_sym_abstract, ''abstract''), (anon_sym_sealed, ''sealed''),
     (anon_sym_operator, ''operator''), (anon_sym_mixin, ''mixin''),
     (anon_sym_required, ''required''), (anon_sym_set, ''set''), (anon_sym_static, ''static''),
     (anon_sym_typedef, ''typedef''), (anon_sym_new, ''new''), (anon_sym_AMP_AMP, ''&&''),
     (anon_sym_PIPE_PIPE, ''||''), (sym_const_builtin, ''const_builtin''),
     (anon_sym_late, ''late''), (anon_sym_external, ''external''), (anon_sym_this, ''this''),
     (anon_sym_super, ''super''),
     (sym_identifier_dollar_escaped, ''identifier_dollar_escaped'')]"

definition ts_symbol_names_2 :: "(TSSymbol \<times> string) list" where
  "ts_symbol_names_2 = [
     (anon_sym_SLASH_SLASH, ''//''), (aux_sym_comment_token1, ''comment_token1''),
     (anon_sym_SLASH_STAR, ''/*''), (aux_sym_comment_token2, ''comment_token2''),
     (anon_sym_SLASH_SLASH_SLASH, ''///''),
     (aux_sym_documentation_comment_token1, ''documentation_comment_token1''),
     (sym__template_chars_double, ''_template_chars_double''),
     (sym__template_chars_single, ''_template_chars_single''),
     (sym__template_chars_double_single, ''_template_chars_double_single''),
     (sym__template_chars_single_single, ''_template_chars_single_single''),
     (sym__template_chars_raw_slash, ''_template_chars_raw_slash''),
     (sym__block_comment, ''_block_comment''),
     (sym__documentation_block_comment, ''_documentation_block_comment''),
     (sym_program, ''program''), (sym__top_level_definition, ''_top_level_definition''),
     (sym__bool_literal, ''_bool_literal''), (sym__numeric_literal, ''_numeric_literal''),
     (sym__literal, ''_literal''), (sym_symbol_literal, ''symbol_literal''),
     (sym_true, ''true''), (sym_false, ''false''), (sym_string_literal, ''string_literal''),
     (sym__string_literal_double_quotes, ''_string_literal_double_quotes''),
     (sym__string_literal_single_quotes, ''_string_literal_single_quotes''),
     (sym__string_literal_double_quotes_multiple, ''_string_literal_double_quotes_multiple''),
     (sym__string_literal_single_quotes_multiple, ''_string_literal_single_quotes_multiple''),
     (sym__raw_string_literal_double_quotes, ''_raw_string_literal_double_quotes''),
     (sym__raw_string_literal_single_quotes, ''_raw_string_literal_single_quotes''),
     (sym__raw_string_literal_double_quotes_multiple, ''_raw_string_literal_double_quotes_multiple''),
     (sym__raw_string_literal_single_quotes_multiple, ''_raw_string_literal_single_quotes_multiple''),
     (sym_template_substitution, ''template_substitution''),
     (sym__sub_string_test, ''_sub_string_test''), (sym_escape_sequence, ''escape_sequence''),
     (sym_list_literal, ''list_literal''), (sym_set_or_map_literal, ''set_or_map_literal''),
     (sym_pair, ''pair''), (sym__element, ''_element''), (sym_null_literal, ''null_literal''),
     (sym_record_literal, ''record_literal''),
     (sym__record_literal_no_const, ''_record_literal_no_const''),
     (sym_record_field, ''record_field''), (sym__expression, ''_expression''),
     (sym__expression_without_cascade, ''_expression_without_cascade''),
     (sym__real_expression, ''_real_expression''), (sym_throw_expression, ''throw_expression''),
     (sym_throw_expression_without_cascade, ''throw_expression_without_cascade''),
     (sym_rethrow_expression, ''rethrow_expression''),
     (sym_assignment_expression, ''assignment_expression''),
     (sym_assignment_expression_without_cascade, ''assignment_expression_without_cascade''),
     (sym_assignable_expression, ''assignable_expression''),
     (sym__assignable_selector_part, ''_assignable_selector_part''),
     (sym__assignment_operator, ''_assignment_operator''),
     (sym_lambda_expression, ''lambda_expression''),
     (sym_function_expression, ''function_expression''),
     (sym_if_null_expression, ''if_null_expression''),
     (aux_sym__if_null_expression, ''_if_null_expression''),
     (sym_conditional_expression, ''conditional_expression''),
     (sym_logical_or_expression, ''logical_or_expression''),
     (sym_logical_and_expression, ''logical_and_expression''),
     (sym_equality_expression, ''equality_expression''),
     (sym_type_cast_expression, ''type_cast_expression''),
     (sym_type_test_expression, ''type_test_expression''),
     (sym_relational_expression, ''relational_expression''),
     (sym_relational_operator, ''relational_operator''),
     (sym_bitwise_or_expression, ''bitwise_or_expression''),
     (sym_bitwise_xor_expression, ''bitwise_xor_expression''),
     (sym_bitwise_and_expression, ''bitwise_and_expression''),
     (sym_shift_expression, ''shift_expression''),
     (sym_additive_expression, ''additive_expression''),
     (sym_multiplicative_expression, ''multiplicative_expression''),
     (sym_bitwise_operator, ''bitwise_operator''),
     (sym__bitwise_operator, ''_bitwise_operator''), (sym_shift_operator, ''shift_operator''),
     (sym__shift_operator, ''_shift_operator''), (sym_additive_operator, ''additive_operator''),
     (sym_multiplicative_operator, ''multiplicative_operator''),
     (sym__multiplicative_operator, ''_multiplicative_operator''),
     (sym__unary_expression, ''_unary_expression''),
     (sym_unary_expression, ''unary_expression''),
     (sym__postfix_expression, ''_postfix_expression''),
     (sym_postfix_expression, ''postfix_expression''),
     (sym_postfix_operator, ''postfix_operator''), (sym_spread_element, ''spread_element''),
     (sym_selector, ''selector''), (sym_prefix_operator, ''prefix_operator''),
     (sym_negation_operator, ''negation_operator''),
     (sym__exclamation_operator, ''_exclamation_operator''),
     (sym_tilde_operator, ''tilde_operator''), (sym_await_expression, ''await_expression''),
     (sym_type_test, ''type_test''), (sym_is_operator, ''is_operator''),
     (sym_type_cast, ''type_cast''), (sym_as_operator, ''as_operator''),
     (sym_new_expression, ''new_expression''), (sym__dot_identifier, ''_dot_identifier''),
     (sym_const_object_expression, ''const_object_expression''), (sym__primary, ''_primary''),
     (sym_parenthesized_expression, ''parenthesized_expression''),
     (sym_constructor_invocation, ''constructor_invocation''),
     (sym_constructor_tearoff, ''constructor_tearoff''), (sym_arguments, ''arguments''),
     (sym__argument_list, ''_argument_list''), (sym__any_argument, ''_any_argument''),
     (sym_argument, ''argument''), (sym_named_argument, ''named_argument''),
     (sym_cascade_section, ''cascade_section''),
     (sym__cascade_subsection, ''_cascade_subsection''),
     (sym__cascade_assignment_section, ''_cascade_assignment_section''),
     (sym_index_selector, ''index_selector''), (sym_cascade_selector, ''cascade_selector''),
     (sym_argument_part, ''argument_part''),
     (sym_unconditional_assignable_selector, ''unconditional_assignable_selector''),
     (sym_conditional_assignable_selector, ''conditional_assignable_selector''),
     (sym__assignable_selector, ''_assignable_selector''),
     (sym_type_arguments, ''type_arguments''), (sym__statement, ''_statement''),
     (sym_local_function_declaration, ''local_function_declaration''), (sym_block, ''block''),
     (sym_expression_statement, ''expression_statement''),
     (sym_assert_statement, ''assert_statement''), (sym_assertion, ''assertion''),
     (sym_assertion_arguments, ''assertion_arguments''),
     (sym_switch_statement, ''switch_statement''),
     (sym_switch_expression, ''switch_expression''),
     (sym_switch_expression_case, ''switch_expression_case''),
     (sym__guarded_pattern, ''_guarded_pattern''), (sym__pattern, ''_pattern''),
     (sym__logical_or_pattern, ''_logical_or_pattern''),
     (sym__logical_and_pattern, ''_logical_and_pattern''),
     (sym__relational_pattern, ''_relational_pattern''),
     (sym__unary_pattern, ''_unary_pattern''), (sym__primary_pattern, ''_primary_pattern''),
     (sym_cast_pattern, ''cast_pattern''), (sym_null_check_pattern, ''null_check_pattern''),
     (sym_null_assert_pattern, ''null_assert_pattern''),
     (sym_constant_pattern, ''constant_pattern''), (sym_variable_pattern, ''variable_pattern''),
     (sym__parenthesized_pattern, ''_parenthesized_pattern''),
     (sym_list_pattern, ''list_pattern''),
     (sym__list_pattern_element, ''_list_pattern_element''),
     (sym_rest_pattern, ''rest_pattern''), (sym_map_pattern, ''map_pattern''),
     (sym__map_pattern_entry, ''_map_pattern_entry''), (sym_record_pattern, ''record_pattern''),
     (sym__pattern_field, ''_pattern_field''), (sym_object_pattern, ''object_pattern''),
     (sym_pattern_variable_declaration, ''pattern_variable_declaration''),
     (sym__outer_pattern, ''_outer_pattern''), (sym_pattern_assignment, ''pattern_assignment''),
     (sym_switch_block, ''switch_block'')]"

definition ts_symbol_names_3 :: "(TSSymbol \<times> string) list" where
  "ts_symbol_names_3 = [
     (sym_switch_statement_case, ''switch_statement_case''),
     (sym_switch_statement_default, ''switch_statement_default''),
     (sym_do_statement, ''do_statement''), (sym_break_statement, ''break_statement''),
     (sym_continue_statement, ''continue_statement''),
     (sym_yield_statement, ''yield_statement''),
     (sym_yield_each_statement, ''yield_each_statement''),
     (sym_return_statement, ''return_statement''), (sym_try_statement, ''try_statement''),
     (sym__on_part, ''_on_part''), (sym__try_head, ''_try_head''),
     (sym_catch_clause, ''catch_clause''), (sym_catch_parameters, ''catch_parameters''),
     (sym_finally_clause, ''finally_clause''), (sym_if_element, ''if_element''),
     (sym_if_statement, ''if_statement''), (sym_while_statement, ''while_statement''),
     (sym_for_statement, ''for_statement''), (sym_for_loop_parts, ''for_loop_parts''),
     (sym__for_loop_parts, ''_for_loop_parts''), (sym_for_element, ''for_element''),
     (sym_annotation, ''annotation''), (sym_import_or_export, ''import_or_export''),
     (sym_library_import, ''library_import''), (sym_library_export, ''library_export''),
     (sym_import_specification, ''import_specification''),
     (sym_part_directive, ''part_directive''), (sym_part_of_directive, ''part_of_directive''),
     (sym_uri, ''uri''), (sym_configurable_uri, ''configurable_uri''),
     (sym_configuration_uri, ''configuration_uri''),
     (sym_configuration_uri_condition, ''configuration_uri_condition''),
     (sym_uri_test, ''uri_test''), (sym_combinator, ''combinator''),
     (sym__identifier_list, ''_identifier_list''), (sym_enum_declaration, ''enum_declaration''),
     (sym_enum_body, ''enum_body''), (sym_enum_constant, ''enum_constant''),
     (sym_type_alias, ''type_alias''), (sym__class_modifiers, ''_class_modifiers''),
     (sym__mixin_class_modifiers, ''_mixin_class_modifiers''),
     (sym_class_definition, ''class_definition''),
     (sym_extension_declaration, ''extension_declaration''), (sym__metadata, ''_metadata''),
     (sym_type_parameters, ''type_parameters''), (sym_type_parameter, ''type_parameter''),
     (sym_type_bound, ''type_bound''), (sym_superclass, ''superclass''),
     (sym_mixins, ''mixins''), (sym_mixin_application_class, ''mixin_application_class''),
     (sym_mixin_application, ''mixin_application''),
     (sym_mixin_declaration, ''mixin_declaration''), (sym_interfaces, ''interfaces''),
     (sym_class_body, ''class_body''), (sym_extension_body, ''extension_body''),
     (sym_getter_signature, ''getter_signature''), (sym_setter_signature, ''setter_signature''),
     (sym_method_signature, ''method_signature''), (sym_declaration, ''declaration''),
     (sym_identifier_list, ''identifier_list''),
     (sym_initialized_identifier_list, ''initialized_identifier_list''),
     (sym_initialized_identifier, ''initialized_identifier''),
     (sym_static_final_declaration_list, ''static_final_declaration_list''),
     (sym_binary_operator, ''binary_operator''),
     (sym_operator_signature, ''operator_signature''),
     (sym_static_final_declaration, ''static_final_declaration''),
     (sym__external_and_static, ''_external_and_static''),
     (sym__final_or_const, ''_final_or_const''), (sym_initializers, ''initializers''),
     (sym_initializer_list_entry, ''initializer_list_entry''),
     (sym_field_initializer, ''field_initializer''),
     (sym_factory_constructor_signature, ''factory_constructor_signature''),
     (sym_redirecting_factory_constructor_signature, ''redirecting_factory_constructor_signature''),
     (sym_redirection, ''redirection''), (sym_constructor_signature, ''constructor_signature''),
     (sym_constant_constructor_signature, ''constant_constructor_signature''),
     (sym_scoped_identifier, ''scoped_identifier''),
     (sym_initialized_variable_definition, ''initialized_variable_definition''),
     (sym__declared_identifier, ''_declared_identifier''),
     (sym__final_const_var_or_type, ''_final_const_var_or_type''), (sym__type, ''_type''),
     (sym__type_not_function, ''_type_not_function''),
     (sym__type_not_void_not_function, ''_type_not_void_not_function''),
     (sym_function_type, ''function_type''),
     (aux_sym__function_type_tails, ''_function_type_tails''),
     (sym__function_type_tail, ''_function_type_tail''),
     (sym_parameter_type_list, ''parameter_type_list''),
     (sym_normal_parameter_type, ''normal_parameter_type''),
     (sym_optional_parameter_types, ''optional_parameter_types''),
     (sym_optional_positional_parameter_types, ''optional_positional_parameter_types''),
     (sym_named_parameter_types, ''named_parameter_types''),
     (sym__named_parameter_type, ''_named_parameter_type''),
     (sym__type_not_void, ''_type_not_void''), (sym_record_type, ''record_type''),
     (sym_record_type_field, ''record_type_field''),
     (sym_record_type_named_field, ''record_type_named_field''),
     (sym__type_not_void_list, ''_type_not_void_list''), (sym__type_name, ''_type_name''),
     (sym__type_dot_identifier, ''_type_dot_identifier''),
     (sym_typed_identifier, ''typed_identifier''), (sym_nullable_type, ''nullable_type''),
     (sym_nullable_selector, ''nullable_selector''), (sym__var_or_type, ''_var_or_type''),
     (sym__final_var_or_type, ''_final_var_or_type''), (sym_inferred_type, ''inferred_type''),
     (sym_function_body, ''function_body''),
     (sym_function_expression_body, ''function_expression_body''),
     (sym_function_signature, ''function_signature''),
     (sym__formal_parameter_part, ''_formal_parameter_part''),
     (sym_formal_parameter_list, ''formal_parameter_list''),
     (sym__strict_formal_parameter_list, ''_strict_formal_parameter_list''),
     (sym__normal_formal_parameters, ''_normal_formal_parameters''),
     (sym_optional_formal_parameters, ''optional_formal_parameters''),
     (sym__optional_postional_formal_parameters, ''_optional_postional_formal_parameters''),
     (sym__named_formal_parameters, ''_named_formal_parameters''),
     (sym_formal_parameter, ''formal_parameter''),
     (sym__default_formal_parameter, ''_default_formal_parameter''),
     (sym__default_named_parameter, ''_default_named_parameter''),
     (sym__normal_formal_parameter, ''_normal_formal_parameter''),
     (sym__function_formal_parameter, ''_function_formal_parameter''),
     (sym__simple_formal_parameter, ''_simple_formal_parameter''),
     (sym_super_formal_parameter, ''super_formal_parameter''),
     (sym_constructor_param, ''constructor_param''),
     (sym_local_variable_declaration, ''local_variable_declaration''),
     (sym_script_tag, ''script_tag''), (sym_library_name, ''library_name''),
     (sym_dotted_identifier_list, ''dotted_identifier_list''),
     (sym__identifier_or_new, ''_identifier_or_new''), (sym_qualified, ''qualified''),
     (sym__as, ''_as''), (sym_case_builtin, ''case_builtin''), (sym__covariant, ''_covariant''),
     (sym__deferred, ''_deferred''), (sym__export, ''_export''), (sym__external, ''_external''),
     (sym__factory, ''_factory''),
     (sym__function_builtin_identifier, ''_function_builtin_identifier''), (sym__get, ''_get''),
     (sym__native, ''_native''), (sym__implements, ''_implements''), (sym__import, ''_import''),
     (sym_interface, ''interface''), (sym_base, ''base''), (sym_abstract, ''abstract''),
     (sym_sealed, ''sealed''), (sym__operator, ''_operator''), (sym_mixin, ''mixin''),
     (sym__required, ''_required''), (sym__set, ''_set''), (sym__static, ''_static'')]"

definition ts_symbol_names_4 :: "(TSSymbol \<times> string) list" where
  "ts_symbol_names_4 = [
     (sym__typedef, ''_typedef''), (sym__new_builtin, ''_new_builtin''),
     (sym_logical_and_operator, ''logical_and_operator''),
     (sym_logical_or_operator, ''logical_or_operator''), (sym_final_builtin, ''final_builtin''),
     (sym__late_builtin, ''_late_builtin''), (sym__external_builtin, ''_external_builtin''),
     (sym_this, ''this''), (sym_super, ''super''), (sym_label, ''label''),
     (sym__semicolon, ''_semicolon''), (sym_comment, ''comment''),
     (sym_documentation_comment, ''documentation_comment''),
     (aux_sym_program_repeat1, ''program_repeat1''),
     (aux_sym_program_repeat2, ''program_repeat2''),
     (aux_sym_program_repeat3, ''program_repeat3''),
     (aux_sym_program_repeat4, ''program_repeat4''),
     (aux_sym_string_literal_repeat1, ''string_literal_repeat1''),
     (aux_sym__string_literal_double_quotes_repeat1, ''_string_literal_double_quotes_repeat1''),
     (aux_sym__string_literal_single_quotes_repeat1, ''_string_literal_single_quotes_repeat1''),
     (aux_sym__string_literal_double_quotes_multiple_repeat1, ''_string_literal_double_quotes_multiple_repeat1''),
     (aux_sym__string_literal_single_quotes_multiple_repeat1, ''_string_literal_single_quotes_multiple_repeat1''),
     (aux_sym__raw_string_literal_double_quotes_repeat1, ''_raw_string_literal_double_quotes_repeat1''),
     (aux_sym__raw_string_literal_single_quotes_repeat1, ''_raw_string_literal_single_quotes_repeat1''),
     (aux_sym__raw_string_literal_double_quotes_multiple_repeat1, ''_raw_string_literal_double_quotes_multiple_repeat1''),
     (aux_sym__raw_string_literal_single_quotes_multiple_repeat1, ''_raw_string_literal_single_quotes_multiple_repeat1''),
     (aux_sym_list_literal_repeat1, ''list_literal_repeat1''),
     (aux_sym__record_literal_no_const_repeat1, ''_record_literal_no_const_repeat1''),
     (aux_sym__expression_repeat1, ''_expression_repeat1''),
     (aux_sym__assignable_selector_part_repeat1, ''_assignable_selector_part_repeat1''),
     (aux_sym_inferred_parameters_repeat1, ''inferred_parameters_repeat1''),
     (aux_sym_logical_or_expression_repeat1, ''logical_or_expression_repeat1''),
     (aux_sym_logical_and_expression_repeat1, ''logical_and_expression_repeat1''),
     (aux_sym_bitwise_or_expression_repeat1, ''bitwise_or_expression_repeat1''),
     (aux_sym_bitwise_xor_expression_repeat1, ''bitwise_xor_expression_repeat1''),
     (aux_sym_bitwise_and_expression_repeat1, ''bitwise_and_expression_repeat1''),
     (aux_sym_shift_expression_repeat1, ''shift_expression_repeat1''),
     (aux_sym_additive_expression_repeat1, ''additive_expression_repeat1''),
     (aux_sym_multiplicative_expression_repeat1, ''multiplicative_expression_repeat1''),
     (aux_sym__argument_list_repeat1, ''_argument_list_repeat1''),
     (aux_sym_cascade_section_repeat1, ''cascade_section_repeat1''),
     (aux_sym_cascade_section_repeat2, ''cascade_section_repeat2''),
     (aux_sym_type_arguments_repeat1, ''type_arguments_repeat1''),
     (aux_sym_block_repeat1, ''block_repeat1''),
     (aux_sym_switch_expression_repeat1, ''switch_expression_repeat1''),
     (aux_sym__logical_or_pattern_repeat1, ''_logical_or_pattern_repeat1''),
     (aux_sym__logical_and_pattern_repeat1, ''_logical_and_pattern_repeat1''),
     (aux_sym_list_pattern_repeat1, ''list_pattern_repeat1''),
     (aux_sym_map_pattern_repeat1, ''map_pattern_repeat1''),
     (aux_sym_record_pattern_repeat1, ''record_pattern_repeat1''),
     (aux_sym_switch_block_repeat1, ''switch_block_repeat1''),
     (aux_sym_switch_statement_case_repeat1, ''switch_statement_case_repeat1''),
     (aux_sym_try_statement_repeat1, ''try_statement_repeat1''),
     (aux_sym__for_loop_parts_repeat1, ''_for_loop_parts_repeat1''),
     (aux_sym__for_loop_parts_repeat2, ''_for_loop_parts_repeat2''),
     (aux_sym_library_export_repeat1, ''library_export_repeat1''),
     (aux_sym_configurable_uri_repeat1, ''configurable_uri_repeat1''),
     (aux_sym_enum_body_repeat1, ''enum_body_repeat1''),
     (aux_sym_enum_body_repeat2, ''enum_body_repeat2''),
     (aux_sym__metadata_repeat1, ''_metadata_repeat1''),
     (aux_sym_type_parameters_repeat1, ''type_parameters_repeat1''),
     (aux_sym_extension_body_repeat1, ''extension_body_repeat1''),
     (aux_sym_initialized_identifier_list_repeat1, ''initialized_identifier_list_repeat1''),
     (aux_sym_static_final_declaration_list_repeat1, ''static_final_declaration_list_repeat1''),
     (aux_sym_initializers_repeat1, ''initializers_repeat1''),
     (aux_sym_factory_constructor_signature_repeat1, ''factory_constructor_signature_repeat1''),
     (aux_sym_parameter_type_list_repeat1, ''parameter_type_list_repeat1''),
     (aux_sym_named_parameter_types_repeat1, ''named_parameter_types_repeat1''),
     (aux_sym_record_type_repeat1, ''record_type_repeat1''),
     (aux_sym_record_type_repeat2, ''record_type_repeat2''),
     (aux_sym__type_not_void_list_repeat1, ''_type_not_void_list_repeat1''),
     (aux_sym__normal_formal_parameters_repeat1, ''_normal_formal_parameters_repeat1''),
     (aux_sym_positional_parameters_repeat1, ''positional_parameters_repeat1''),
     (aux_sym__named_formal_parameters_repeat1, ''_named_formal_parameters_repeat1''),
     (alias_sym_type_identifier, ''type_identifier'')]"

definition ts_symbol_names_table :: "(TSSymbol \<times> string) list" where
  "ts_symbol_names_table = ts_symbol_names_1 @ ts_symbol_names_2 @ ts_symbol_names_3 @ ts_symbol_names_4"

definition ts_symbol_names :: "TSSymbol \<rightharpoonup> string" where
  "ts_symbol_names = map_of ts_symbol_names_table"

lemma ts_symbol_names_keys:
  "map fst ts_symbol_names_1 = [0..<150]"
  "map fst ts_symbol_names_2 = [150..<300]"
  "map fst ts_symbol_names_3 = [300..<450]"
  "map fst ts_symbol_names_4 = [450..<525]"
  by (simp add: ts_symbol_names_1_def upt_from_0)
    (simp_all add: ts_symbol_names_2_def ts_symbol_names_3_def ts_symbol_names_4_def)

lemma ts_symbol_names_keys_all: "map fst ts_symbol_names_table = [0..<525]"
  by (simp add: ts_symbol_names_table_def ts_symbol_names_keys upt_join del: upt_rec_numeral)

subsection \<open>The public symbol map\<close>

definition ts_symbol_map_1 :: "(TSSymbol \<times> TSSymbol) list" where
  "ts_symbol_map_1 = [
     (ts_builtin_sym_end, ts_builtin_sym_end), (sym_identifier, sym_identifier),
     (anon_sym_POUND, anon_sym_POUND),
     (sym_decimal_integer_literal, sym_decimal_integer_literal),
     (sym_hex_integer_literal, sym_hex_integer_literal),
     (sym_decimal_floating_point_literal, sym_decimal_floating_point_literal),
     (anon_sym_true, anon_sym_true), (anon_sym_false, anon_sym_false),
     (anon_sym_DQUOTE, anon_sym_DQUOTE), (anon_sym_SQUOTE, anon_sym_SQUOTE),
     (anon_sym_DQUOTE_DQUOTE_DQUOTE, anon_sym_DQUOTE_DQUOTE_DQUOTE),
     (anon_sym_SQUOTE_SQUOTE_SQUOTE, anon_sym_SQUOTE_SQUOTE_SQUOTE),
     (anon_sym_r_DQUOTE, anon_sym_r_DQUOTE), (anon_sym_DOLLAR, anon_sym_DOLLAR),
     (anon_sym_r_SQUOTE, anon_sym_r_SQUOTE),
     (anon_sym_r_DQUOTE_DQUOTE_DQUOTE, anon_sym_r_DQUOTE_DQUOTE_DQUOTE),
     (anon_sym_r_SQUOTE_SQUOTE_SQUOTE, anon_sym_r_SQUOTE_SQUOTE_SQUOTE),
     (anon_sym_LBRACE, anon_sym_LBRACE), (anon_sym_RBRACE, anon_sym_RBRACE),
     (aux_sym__sub_string_test_token1, aux_sym__sub_string_test_token1),
     (sym__unused_escape_sequence, sym__unused_escape_sequence),
     (anon_sym_LBRACK, anon_sym_LBRACK), (anon_sym_COMMA, anon_sym_COMMA),
     (anon_sym_RBRACK, anon_sym_RBRACK), (anon_sym_COLON, anon_sym_COLON),
     (anon_sym_null, anon_sym_null), (anon_sym_LPAREN, anon_sym_LPAREN),
     (anon_sym_RPAREN, anon_sym_RPAREN), (anon_sym_throw, anon_sym_throw),
     (anon_sym_EQ, anon_sym_EQ), (anon_sym_PLUS_EQ, anon_sym_PLUS_EQ),
     (anon_sym_DASH_EQ, anon_sym_DASH_EQ), (anon_sym_STAR_EQ, anon_sym_STAR_EQ),
     (anon_sym_SLASH_EQ, anon_sym_SLASH_EQ), (anon_sym_PERCENT_EQ, anon_sym_PERCENT_EQ),
     (anon_sym_TILDE_SLASH_EQ, anon_sym_TILDE_SLASH_EQ), (anon_sym_LT_LT_EQ, anon_sym_LT_LT_EQ),
     (anon_sym_GT_GT_EQ, anon_sym_GT_GT_EQ), (anon_sym_GT_GT_GT_EQ, anon_sym_GT_GT_GT_EQ),
     (anon_sym_AMP_EQ, anon_sym_AMP_EQ), (anon_sym_CARET_EQ, anon_sym_CARET_EQ),
     (anon_sym_PIPE_EQ, anon_sym_PIPE_EQ), (anon_sym_QMARK_QMARK_EQ, anon_sym_QMARK_QMARK_EQ),
     (anon_sym_QMARK_QMARK, anon_sym_QMARK_QMARK), (anon_sym_QMARK, anon_sym_QMARK),
     (sym_equality_operator, sym_equality_operator), (anon_sym_LT, anon_sym_LT),
     (anon_sym_GT, anon_sym_GT), (anon_sym_LT_EQ, anon_sym_LT_EQ),
     (anon_sym_GT_EQ, anon_sym_GT_EQ), (anon_sym_PIPE, anon_sym_PIPE),
     (anon_sym_CARET, anon_sym_CARET), (anon_sym_AMP, anon_sym_AMP),
     (anon_sym_LT_LT, anon_sym_LT_LT), (anon_sym_GT_GT, anon_sym_GT_GT),
     (anon_sym_GT_GT_GT, anon_sym_GT_GT_GT), (sym__additive_operator, sym__additive_operator),
     (anon_sym_STAR, anon_sym_STAR), (anon_sym_SLASH, anon_sym_SLASH),
     (anon_sym_PERCENT, anon_sym_PERCENT), (anon_sym_TILDE_SLASH, anon_sym_TILDE_SLASH),
     (sym_increment_operator, sym_increment_operator),
     (anon_sym_DOT_DOT_DOT, anon_sym_DOT_DOT_DOT), (sym_minus_operator, sym_minus_operator),
     (anon_sym_BANG, anon_sym_BANG), (anon_sym_TILDE, anon_sym_TILDE),
     (anon_sym_await, anon_sym_await), (anon_sym_is, anon_sym_is), (anon_sym_as, anon_sym_as),
     (anon_sym_DOT, anon_sym_DOT), (anon_sym_QMARK_DOT, anon_sym_QMARK_DOT),
     (anon_sym_DOT_DOT, anon_sym_DOT_DOT), (anon_sym_QMARK_DOT_DOT, anon_sym_QMARK_DOT_DOT),
     (anon_sym_extends, anon_sym_extends), (anon_sym_SEMI, anon_sym_SEMI),
     (anon_sym_switch, anon_sym_switch), (anon_sym_EQ_GT, anon_sym_EQ_GT),
     (anon_sym_when, anon_sym_when), (anon_sym_default, anon_sym_default),
     (anon_sym_do, anon_sym_do), (anon_sym_while, anon_sym_while),
     (anon_sym_continue, anon_sym_continue), (anon_sym_yield, anon_sym_yield),
     (anon_sym_return, anon_sym_return), (anon_sym_on, anon_sym_on),
     (anon_sym_try, anon_sym_try), (anon_sym_catch, anon_sym_catch),
     (anon_sym_finally, anon_sym_finally), (anon_sym_if, anon_sym_if),
     (anon_sym_case, anon_sym_case), (anon_sym_else, anon_sym_else),
     (anon_sym_for, anon_sym_for), (anon_sym_in, anon_sym_in), (anon_sym_AT, anon_sym_AT),
     (anon_sym_part, anon_sym_part), (anon_sym_EQ_EQ, anon_sym_EQ_EQ),
     (anon_sym_show, anon_sym_show), (anon_sym_hide, anon_sym_hide),
     (anon_sym_enum, anon_sym_enum), (anon_sym_final, anon_sym_final),
     (anon_sym_inline, anon_sym_inline), (anon_sym_class, anon_sym_class),
     (anon_sym_extension, anon_sym_extension), (anon_sym_with, anon_sym_with),
     (anon_sym_LBRACK_RBRACK, anon_sym_LBRACK_RBRACK),
     (anon_sym_LBRACK_RBRACK_EQ, anon_sym_LBRACK_RBRACK_EQ),
     (sym_floating_point_type, sym_floating_point_type), (anon_sym_bool, anon_sym_bool),
     (sym_void_type, sym_void_type), (anon_sym_var, anon_sym_var),
     (anon_sym_async, anon_sym_async), (anon_sym_async_STAR, anon_sym_async_STAR),
     (anon_sym_sync_STAR, anon_sym_sync_STAR), (anon_sym_POUND_BANG, anon_sym_POUND_BANG),
     (aux_sym_script_tag_token1, aux_sym_script_tag_token1), (anon_sym_LF, anon_sym_LF),
     (anon_sym_library, anon_sym_library), (sym_break_builtin, sym_break_builtin),
     (sym_assert_builtin, sym_assert_builtin), (sym_rethrow_builtin, sym_rethrow_builtin),
     (sym_part_of_builtin, sym_part_of_builtin), (anon_sym_covariant, anon_sym_covariant),
     (anon_sym_deferred, anon_sym_deferred), (anon_sym_dynamic, anon_sym_dynamic),
     (anon_sym_export, anon_sym_export), (anon_sym_factory, anon_sym_factory),
     (anon_sym_Function, anon_sym_Function), (anon_sym_get, anon_sym_get),
     (anon_sym_native, anon_sym_native), (anon_sym_implements, anon_sym_implements),
     (anon_sym_import, anon_sym_import), (anon_sym_interface, anon_sym_interface),
     (anon_sym_base, anon_sym_base), (anon_sym_abstract, anon_sym_abstract),
     (anon_sym_sealed, anon_sym_sealed), (anon_sym_operator, anon_sym_operator),
     (anon_sym_mixin, anon_sym_mixin), (anon_sym_required, anon_sym_required),
     (anon_sym_set, anon_sym_set), (anon_sym_static, anon_sym_static),
     (anon_sym_typedef, anon_sym_typedef), (anon_sym_new, anon_sym_new),
     (anon_sym_AMP_AMP, anon_sym_AMP_AMP), (anon_sym_PIPE_PIPE, anon_sym_PIPE_PIPE),
     (sym_const_builtin, sym_const_builtin), (anon_sym_late, anon_sym_late),
     (anon_sym_external, anon_sym_external), (anon_sym_this, anon_sym_this),
     (anon_sym_super, anon_sym_super),
     (sym_identifier_dollar_escaped, sym_identifier_dollar_escaped)]"

definition ts_symbol_map_2 :: "(TSSymbol \<times> TSSymbol) list" where
  "ts_symbol_map_2 = [
     (anon_sym_SLASH_SLASH, anon_sym_SLASH_SLASH),
     (aux_sym_comment_token1, aux_sym_comment_token1),
     (anon_sym_SLASH_STAR, anon_sym_SLASH_STAR),
     (aux_sym_comment_token2, aux_sym_comment_token2),
     (anon_sym_SLASH_SLASH_SLASH, anon_sym_SLASH_SLASH_SLASH),
     (aux_sym_documentation_comment_token1, aux_sym_documentation_comment_token1),
     (sym__template_chars_double, sym__template_chars_double),
     (sym__template_chars_single, sym__template_chars_single),
     (sym__template_chars_double_single, sym__template_chars_double_single),
     (sym__template_chars_single_single, sym__template_chars_single_single),
     (sym__template_chars_raw_slash, sym__template_chars_raw_slash),
     (sym__block_comment, sym__block_comment),
     (sym__documentation_block_comment, sym__documentation_block_comment),
     (sym_program, sym_program), (sym__top_level_definition, sym__top_level_definition),
     (sym__bool_literal, sym__bool_literal), (sym__numeric_literal, sym__numeric_literal),
     (sym__literal, sym__literal), (sym_symbol_literal, sym_symbol_literal),
     (sym_true, sym_true), (sym_false, sym_false), (sym_string_literal, sym_string_literal),
     (sym__string_literal_double_quotes, sym__string_literal_double_quotes),
     (sym__string_literal_single_quotes, sym__string_literal_single_quotes),
     (sym__string_literal_double_quotes_multiple, sym__string_literal_double_quotes_multiple),
     (sym__string_literal_single_quotes_multiple, sym__string_literal_single_quotes_multiple),
     (sym__raw_string_literal_double_quotes, sym__raw_string_literal_double_quotes),
     (sym__raw_string_literal_single_quotes, sym__raw_string_literal_single_quotes),
     (sym__raw_string_literal_double_quotes_multiple, sym__raw_string_literal_double_quotes_multiple),
     (sym__raw_string_literal_single_quotes_multiple, sym__raw_string_literal_single_quotes_multiple),
     (sym_template_substitution, sym_template_substitution),
     (sym__sub_string_test, sym__sub_string_test), (sym_escape_sequence, sym_escape_sequence),
     (sym_list_literal, sym_list_literal), (sym_set_or_map_literal, sym_set_or_map_literal),
     (sym_pair, sym_pair), (sym__element, sym__element), (sym_null_literal, sym_null_literal),
     (sym_record_literal, sym_record_literal),
     (sym__record_literal_no_const, sym__record_literal_no_const),
     (sym_record_field, sym_record_field), (sym__expression, sym__expression),
     (sym__expression_without_cascade, sym__expression_without_cascade),
     (sym__real_expression, sym__real_expression), (sym_throw_expression, sym_throw_expression),
     (sym_throw_expression_without_cascade, sym_throw_expression_without_cascade),
     (sym_rethrow_expression, sym_rethrow_expression),
     (sym_assignment_expression, sym_assignment_expression),
     (sym_assignment_expression_without_cascade, sym_assignment_expression_without_cascade),
     (sym_assignable_expression, sym_assignable_expression),
     (sym__assignable_selector_part, sym__assignable_selector_part),
     (sym__assignment_operator, sym__assignment_operator),
     (sym_lambda_expression, sym_lambda_expression),
     (sym_function_expression, sym_function_expression),
     (sym_if_null_expression, sym_if_null_expression),
     (aux_sym__if_null_expression, aux_sym__if_null_expression),
     (sym_conditional_expression, sym_conditional_expression),
     (sym_logical_or_expression, sym_logical_or_expression),
     (sym_logical_and_expression, sym_logical_and_expression),
     (sym_equality_expression, sym_equality_expression),
     (sym_type_cast_expression, sym_type_cast_expression),
     (sym_type_test_expression, sym_type_test_expression),
     (sym_relational_expression, sym_relational_expression),
     (sym_relational_operator, sym_relational_operator),
     (sym_bitwise_or_expression, sym_bitwise_or_expression),
     (sym_bitwise_xor_expression, sym_bitwise_xor_expression),
     (sym_bitwise_and_expression, sym_bitwise_and_expression),
     (sym_shift_expression, sym_shift_expression),
     (sym_additive_expression, sym_additive_expression),
     (sym_multiplicative_expression, sym_multiplicative_expression),
     (sym_bitwise_operator, sym_bitwise_operator),
     (sym__bitwise_operator, sym__bitwise_operator), (sym_shift_operator, sym_shift_operator),
     (sym__shift_operator, sym__shift_operator), (sym_additive_operator, sym_additive_operator),
     (sym_multiplicative_operator, sym_multiplicative_operator),
     (sym__multiplicative_operator, sym__multiplicative_operator),
     (sym__unary_expression, sym__unary_expression),
     (sym_unary_expression, sym_unary_expression),
     (sym__postfix_expression, sym__postfix_expression),
     (sym_postfix_expression, sym_postfix_expression),
     (sym_postfix_operator, sym_postfix_operator), (sym_spread_element, sym_spread_element),
     (sym_selector, sym_selector), (sym_prefix_operator, sym_prefix_operator),
     (sym_negation_operator, sym_negation_operator),
     (sym__exclamation_operator, sym__exclamation_operator),
     (sym_tilde_operator, sym_tilde_operator), (sym_await_expression, sym_await_expression),
     (sym_type_test, sym_type_test), (sym_is_operator, sym_is_operator),
     (sym_type_cast, sym_type_cast), (sym_as_operator, sym_as_operator),
     (sym_new_expression, sym_new_expression), (sym__dot_identifier, sym__dot_identifier),
     (sym_const_object_expression, sym_const_object_expression), (sym__primary, sym__primary),
     (sym_parenthesized_expression, sym_parenthesized_expression),
     (sym_constructor_invocation, sym_constructor_invocation),
     (sym_constructor_tearoff, sym_constructor_tearoff), (sym_arguments, sym_arguments),
     (sym__argument_list, sym__argument_list), (sym__any_argument, sym__any_argument),
     (sym_argument, sym_argument), (sym_named_argument, sym_named_argument),
     (sym_cascade_section, sym_cascade_section),
     (sym__cascade_subsection, sym__cascade_subsection),
     (sym__cascade_assignment_section, sym__cascade_assignment_section),
     (sym_index_selector, sym_index_selector), (sym_cascade_selector, sym_cascade_selector),
     (sym_argument_part, sym_argument_part),
     (sym_unconditional_assignable_selector, sym_unconditional_assignable_selector),
     (sym_conditional_assignable_selector, sym_conditional_assignable_selector),
     (sym__assignable_selector, sym__assignable_selector),
     (sym_type_arguments, sym_type_arguments), (sym__statement, sym__statement),
     (sym_local_function_declaration, sym_local_function_declaration), (sym_block, sym_block),
     (sym_expression_statement, sym_expression_statement),
     (sym_assert_statement, sym_assert_statement), (sym_assertion, sym_assertion),
     (sym_assertion_arguments, sym_assertion_arguments),
     (sym_switch_statement, sym_switch_statement),
     (sym_switch_expression, sym_switch_expression),
     (sym_switch_expression_case, sym_switch_expression_case),
     (sym__guarded_pattern, sym__guarded_pattern), (sym__pattern, sym__pattern),
     (sym__logical_or_pattern, sym__logical_or_pattern),
     (sym__logical_and_pattern, sym__logical_and_pattern),
     (sym__relational_pattern, sym__relational_pattern),
     (sym__unary_pattern, sym__unary_pattern), (sym__primary_pattern, sym__primary_pattern),
     (sym_cast_pattern, sym_cast_pattern), (sym_null_check_pattern, sym_null_check_pattern),
     (sym_null_assert_pattern, sym_null_assert_pattern),
     (sym_constant_pattern, sym_constant_pattern), (sym_variable_pattern, sym_variable_pattern),
     (sym__parenthesized_pattern, sym__parenthesized_pattern),
     (sym_list_pattern, sym_list_pattern),
     (sym__list_pattern_element, sym__list_pattern_element),
     (sym_rest_pattern, sym_rest_pattern), (sym_map_pattern, sym_map_pattern),
     (sym__map_pattern_entry, sym__map_pattern_entry), (sym_record_pattern, sym_record_pattern),
     (sym__pattern_field, sym__pattern_field), (sym_object_pattern, sym_object_pattern),
     (sym_pattern_variable_declaration, sym_pattern_variable_declaration),
     (sym__outer_pattern, sym__outer_pattern), (sym_pattern_assignment, sym_pattern_assignment),
     (sym_switch_block, sym_switch_block)]"

definition ts_symbol_map_3 :: "(TSSymbol \<times> TSSymbol) list" where
  "ts_symbol_map_3 = [
     (sym_switch_statement_case, sym_switch_statement_case),
     (sym_switch_statement_default, sym_switch_statement_default),
     (sym_do_statement, sym_do_statement), (sym_break_statement, sym_break_statement),
     (sym_continue_statement, sym_continue_statement),
     (sym_yield_statement, sym_yield_statement),
     (sym_yield_each_statement, sym_yield_each_statement),
     (sym_return_statement, sym_return_statement), (sym_try_statement, sym_try_statement),
     (sym__on_part, sym__on_part), (sym__try_head, sym__try_head),
     (sym_catch_clause, sym_catch_clause), (sym_catch_parameters, sym_catch_parameters),
     (sym_finally_clause, sym_finally_clause), (sym_if_element, sym_if_element),
     (sym_if_statement, sym_if_statement), (sym_while_statement, sym_while_statement),
     (sym_for_statement, sym_for_statement), (sym_for_loop_parts, sym_for_loop_parts),
     (sym__for_loop_parts, sym__for_loop_parts), (sym_for_element, sym_for_element),
     (sym_annotation, sym_annotation), (sym_import_or_export, sym_import_or_export),
     (sym_library_import, sym_library_import), (sym_library_export, sym_library_export),
     (sym_import_specification, sym_import_specification),
     (sym_part_directive, sym_part_directive), (sym_part_of_directive, sym_part_of_directive),
     (sym_uri, sym_uri), (sym_configurable_uri, sym_configurable_uri),
     (sym_configuration_uri, sym_configuration_uri),
     (sym_configuration_uri_condition, sym_configuration_uri_condition),
     (sym_uri_test, sym_uri_test), (sym_combinator, sym_combinator),
     (sym__identifier_list, sym__identifier_list), (sym_enum_declaration, sym_enum_declaration),
     (sym_enum_body, sym_enum_body), (sym_enum_constant, sym_enum_constant),
     (sym_type_alias, sym_type_alias), (sym__class_modifiers, sym__class_modifiers),
     (sym__mixin_class_modifiers, sym__mixin_class_modifiers),
     (sym_class_definition, sym_class_definition),
     (sym_extension_declaration, sym_extension_declaration), (sym__metadata, sym__metadata),
     (sym_type_parameters, sym_type_parameters), (sym_type_parameter, sym_type_parameter),
     (sym_type_bound, sym_type_bound), (sym_superclass, sym_superclass),
     (sym_mixins, sym_mixins), (sym_mixin_application_class, sym_mixin_application_class),
     (sym_mixin_application, sym_mixin_application),
     (sym_mixin_declaration, sym_mixin_declaration), (sym_interfaces, sym_interfaces),
     (sym_class_body, sym_class_body), (sym_extension_body, sym_extension_body),
     (sym_getter_signature, sym_getter_signature), (sym_setter_signature, sym_setter_signature),
     (sym_method_signature, sym_method_signature), (sym_declaration, sym_declaration),
     (sym_identifier_list, sym_identifier_list),
     (sym_initialized_identifier_list, sym_initialized_identifier_list),
     (sym_initialized_identifier, sym_initialized_identifier),
     (sym_static_final_declaration_list, sym_static_final_declaration_list),
     (sym_binary_operator, sym_binary_operator),
     (sym_operator_signature, sym_operator_signature),
     (sym_static_final_declaration, sym_static_final_declaration),
     (sym__external_and_static, sym__external_and_static),
     (sym__final_or_const, sym__final_or_const), (sym_initializers, sym_initializers),
     (sym_initializer_list_entry, sym_initializer_list_entry),
     (sym_field_initializer, sym_field_initializer),
     (sym_factory_constructor_signature, sym_factory_constructor_signature),
     (sym_redirecting_factory_constructor_signature, sym_redirecting_factory_constructor_signature),
     (sym_redirection, sym_redirection), (sym_constructor_signature, sym_constructor_signature),
     (sym_constant_constructor_signature, sym_constant_constructor_signature),
     (sym_scoped_identifier, sym_scoped_identifier),
     (sym_initialized_variable_definition, sym_initialized_variable_definition),
     (sym__declared_identifier, sym__declared_identifier),
     (sym__final_const_var_or_type, sym__final_const_var_or_type), (sym__type, sym__type),
     (sym__type_not_function, sym__type_not_function),
     (sym__type_not_void_not_function, sym__type_not_void_not_function),
     (sym_function_type, sym_function_type),
     (aux_sym__function_type_tails, aux_sym__function_type_tails),
     (sym__function_type_tail, sym__function_type_tail),
     (sym_parameter_type_list, sym_parameter_type_list),
     (sym_normal_parameter_type, sym_normal_parameter_type),
     (sym_optional_parameter_types, sym_optional_parameter_types),
     (sym_optional_positional_parameter_types, sym_optional_positional_parameter_types),
     (sym_named_parameter_types, sym_named_parameter_types),
     (sym__named_parameter_type, sym__named_parameter_type),
     (sym__type_not_void, sym__type_not_void), (sym_record_type, sym_record_type),
     (sym_record_type_field, sym_record_type_field),
     (sym_record_type_named_field, sym_record_type_named_field),
     (sym__type_not_void_list, sym__type_not_void_list), (sym__type_name, sym__type_name),
     (sym__type_dot_identifier, sym__type_dot_identifier),
     (sym_typed_identifier, sym_typed_identifier), (sym_nullable_type, sym_nullable_type),
     (sym_nullable_selector, sym_nullable_selector), (sym__var_or_type, sym__var_or_type),
     (sym__final_var_or_type, sym__final_var_or_type), (sym_inferred_type, sym_inferred_type),
     (sym_function_body, sym_function_body),
     (sym_function_expression_body, sym_function_expression_body),
     (sym_function_signature, sym_function_signature),
     (sym__formal_parameter_part, sym__formal_parameter_part),
     (sym_formal_parameter_list, sym_formal_parameter_list),
     (sym__strict_formal_parameter_list, sym__strict_formal_parameter_list),
     (sym__normal_formal_parameters, sym__normal_formal_parameters),
     (sym_optional_formal_parameters, sym_optional_formal_parameters),
     (sym__optional_postional_formal_parameters, sym__optional_postional_formal_parameters),
     (sym__named_formal_parameters, sym__named_formal_parameters),
     (sym_formal_parameter, sym_formal_parameter),
     (sym__default_formal_parameter, sym__default_formal_parameter),
     (sym__default_named_parameter, sym__default_named_parameter),
     (sym__normal_formal_parameter, sym__normal_formal_parameter),
     (sym__function_formal_parameter, sym__function_formal_parameter),
     (sym__simple_formal_parameter, sym__simple_formal_parameter),
     (sym_super_formal_parameter, sym_super_formal_parameter),
     (sym_constructor_param, sym_constructor_param),
     (sym_local_variable_declaration, sym_local_variable_declaration),
     (sym_script_tag, sym_script_tag), (sym_library_name, sym_library_name),
     (sym_dotted_identifier_list, sym_dotted_identifier_list),
     (sym__identifier_or_new, sym__identifier_or_new), (sym_qualified, sym_qualified),
     (sym__as, sym__as), (sym_case_builtin, sym_case_builtin), (sym__covariant, sym__covariant),
     (sym__deferred, sym__deferred), (sym__export, sym__export), (sym__external, sym__external),
     (sym__factory, sym__factory),
     (sym__function_builtin_identifier, sym__function_builtin_identifier), (sym__get, sym__get),
     (sym__native, sym__native), (sym__implements, sym__implements), (sym__import, sym__import),
     (sym_interface, sym_interface), (sym_base, sym_base), (sym_abstract, sym_abstract),
     (sym_sealed, sym_sealed), (sym__operator, sym__operator), (sym_mixin, sym_mixin),
     (sym__required, sym__required), (sym__set, sym__set), (sym__static, sym__static)]"

definition ts_symbol_map_4 :: "(TSSymbol \<times> TSSymbol) list" where
  "ts_symbol_map_4 = [
     (sym__typedef, sym__typedef), (sym__new_builtin, sym__new_builtin),
     (sym_logical_and_operator, sym_logical_and_operator),
     (sym_logical_or_operator, sym_logical_or_operator), (sym_final_builtin, sym_final_builtin),
     (sym__late_builtin, sym__late_builtin), (sym__external_builtin, sym__external_builtin),
     (sym_this, sym_this), (sym_super, sym_super), (sym_label, sym_label),
     (sym__semicolon, sym__semicolon), (sym_comment, sym_comment),
     (sym_documentation_comment, sym_documentation_comment),
     (aux_sym_program_repeat1, aux_sym_program_repeat1),
     (aux_sym_program_repeat2, aux_sym_program_repeat2),
     (aux_sym_program_repeat3, aux_sym_program_repeat3),
     (aux_sym_program_repeat4, aux_sym_program_repeat4),
     (aux_sym_string_literal_repeat1, aux_sym_string_literal_repeat1),
     (aux_sym__string_literal_double_quotes_repeat1, aux_sym__string_literal_double_quotes_repeat1),
     (aux_sym__string_literal_single_quotes_repeat1, aux_sym__string_literal_single_quotes_repeat1),
     (aux_sym__string_literal_double_quotes_multiple_repeat1, aux_sym__string_literal_double_quotes_multiple_repeat1),
     (aux_sym__string_literal_single_quotes_multiple_repeat1, aux_sym__string_literal_single_quotes_multiple_repeat1),
     (aux_sym__raw_string_literal_double_quotes_repeat1, aux_sym__raw_string_literal_double_quotes_repeat1),
     (aux_sym__raw_string_literal_single_quotes_repeat1, aux_sym__raw_string_literal_single_quotes_repeat1),
     (aux_sym__raw_string_literal_double_quotes_multiple_repeat1, aux_sym__raw_string_literal_double_quotes_multiple_repeat1),
     (aux_sym__raw_string_literal_single_quotes_multiple_repeat1, aux_sym__raw_string_literal_single_quotes_multiple_repeat1),
     (aux_sym_list_literal_repeat1, aux_sym_list_literal_repeat1),
     (aux_sym__record_literal_no_const_repeat1, aux_sym__record_literal_no_const_repeat1),
     (aux_sym__expression_repeat1, aux_sym__expression_repeat1),
     (aux_sym__assignable_selector_part_repeat1, aux_sym__assignable_selector_part_repeat1),
     (aux_sym_inferred_parameters_repeat1, aux_sym_inferred_parameters_repeat1),
     (aux_sym_logical_or_expression_repeat1, aux_sym_logical_or_expression_repeat1),
     (aux_sym_logical_and_expression_repeat1, aux_sym_logical_and_expression_repeat1),
     (aux_sym_bitwise_or_expression_repeat1, aux_sym_bitwise_or_expression_repeat1),
     (aux_sym_bitwise_xor_expression_repeat1, aux_sym_bitwise_xor_expression_repeat1),
     (aux_sym_bitwise_and_expression_repeat1, aux_sym_bitwise_and_expression_repeat1),
     (aux_sym_shift_expression_repeat1, aux_sym_shift_expression_repeat1),
     (aux_sym_additive_expression_repeat1, aux_sym_additive_expression_repeat1),
     (aux_sym_multiplicative_expression_repeat1, aux_sym_multiplicative_expression_repeat1),
     (aux_sym__argument_list_repeat1, aux_sym__argument_list_repeat1),
     (aux_sym_cascade_section_repeat1, aux_sym_cascade_section_repeat1),
     (aux_sym_cascade_section_repeat2, aux_sym_cascade_section_repeat2),
     (aux_sym_type_arguments_repeat1, aux_sym_type_arguments_repeat1),
     (aux_sym_block_repeat1, aux_sym_block_repeat1),
     (aux_sym_switch_expression_repeat1, aux_sym_switch_expression_repeat1),
     (aux_sym__logical_or_pattern_repeat1, aux_sym__logical_or_pattern_repeat1),
     (aux_sym__logical_and_pattern_repeat1, aux_sym__logical_and_pattern_repeat1),
     (aux_sym_list_pattern_repeat1, aux_sym_list_pattern_repeat1),
     (aux_sym_map_pattern_repeat1, aux_sym_map_pattern_repeat1),
     (aux_sym_record_pattern_repeat1, aux_sym_record_pattern_repeat1),
     (aux_sym_switch_block_repeat1, aux_sym_switch_block_repeat1),
     (aux_sym_switch_statement_case_repeat1, aux_sym_switch_statement_case_repeat1),
     (aux_sym_try_statement_repeat1, aux_sym_try_statement_repeat1),
     (aux_sym__for_loop_parts_repeat1, aux_sym__for_loop_parts_repeat1),
     (aux_sym__for_loop_parts_repeat2, aux_sym__for_loop_parts_repeat2),
     (aux_sym_library_export_repeat1, aux_sym_library_export_repeat1),
     (aux_sym_configurable_uri_repeat1, aux_sym_configurable_uri_repeat1),
     (aux_sym_enum_body_repeat1, aux_sym_enum_body_repeat1),
     (aux_sym_enum_body_repeat2, aux_sym_enum_body_repeat2),
     (aux_sym__metadata_repeat1, aux_sym__metadata_repeat1),
     (aux_sym_type_parameters_repeat1, aux_sym_type_parameters_repeat1),
     (aux_sym_extension_body_repeat1, aux_sym_extension_body_repeat1),
     (aux_sym_initialized_identifier_list_repeat1, aux_sym_initialized_identifier_list_repeat1),
     (aux_sym_static_final_declaration_list_repeat1, aux_sym_static_final_declaration_list_repeat1),
     (aux_sym_initializers_repeat1, aux_sym_initializers_repeat1),
     (aux_sym_factory_constructor_signature_repeat1, aux_sym_factory_constructor_signature_repeat1),
     (aux_sym_parameter_type_list_repeat1, aux_sym_parameter_type_list_repeat1),
     (aux_sym_named_parameter_types_repeat1, aux_sym_named_parameter_types_repeat1),
     (aux_sym_record_type_repeat1, aux_sym_record_type_repeat1),
     (aux_sym_record_type_repeat2, aux_sym_record_type_repeat2),
     (aux_sym__type_not_void_list_repeat1, aux_sym__type_not_void_list_repeat1),
     (aux_sym__normal_formal_parameters_repeat1, aux_sym__normal_formal_parameters_repeat1),
     (aux_sym_positional_parameters_repeat1, aux_sym_positional_parameters_repeat1),
     (aux_sym__named_formal_parameters_repeat1, aux_sym__named_formal_parameters_repeat1),
     (alias_sym_type_identifier, alias_sym_type_identifier)]"

definition ts_symbol_map_table :: "(TSSymbol \<times> TSSymbol) list" where
  "ts_symbol_map_table = ts_symbol_map_1 @ ts_symbol_map_2 @ ts_symbol_map_3 @ ts_symbol_map_4"

definition ts_symbol_map :: "TSSymbol \<rightharpoonup> TSSymbol" where
  "ts_symbol_map = map_of ts_symbol_map_table"

lemma ts_symbol_map_keys:
  "map fst ts_symbol_map_1 = [0..<150]"
  "map fst ts_symbol_map_2 = [150..<300]"
  "map fst ts_symbol_map_3 = [300..<450]"
  "map fst ts_symbol_map_4 = [450..<525]"
  by (simp add: ts_symbol_map_1_def upt_from_0)
    (simp_all add: ts_symbol_map_2_def ts_symbol_map_3_def ts_symbol_map_4_def)

lemma ts_symbol_map_keys_all: "map fst ts_symbol_map_table = [0..<525]"
  by (simp add: ts_symbol_map_table_def ts_symbol_map_keys upt_join del: upt_rec_numeral)

subsection \<open>Metadata\<close>

record TSSymbolMetadata =
  visible :: bool
  named :: bool
  supertype :: bool

text \<open>The flags in the order of the struct; a flag that is not initialised is false.\<close>

abbreviation (input) MD :: "bool \<Rightarrow> bool \<Rightarrow> bool \<Rightarrow> TSSymbolMetadata" where
  "MD v n s \<equiv> \<lparr>visible = v, named = n, supertype = s\<rparr>"

definition ts_symbol_metadata_1 :: "(TSSymbol \<times> TSSymbolMetadata) list" where
  "ts_symbol_metadata_1 = [
     (ts_builtin_sym_end, MD False True False), (sym_identifier, MD True True False),
     (anon_sym_POUND, MD True False False), (sym_decimal_integer_literal, MD True True False),
     (sym_hex_integer_literal, MD True True False),
     (sym_decimal_floating_point_literal, MD True True False),
     (anon_sym_true, MD True False False), (anon_sym_false, MD True False False),
     (anon_sym_DQUOTE, MD True False False), (anon_sym_SQUOTE, MD True False False),
     (anon_sym_DQUOTE_DQUOTE_DQUOTE, MD True False False),
     (anon_sym_SQUOTE_SQUOTE_SQUOTE, MD True False False),
     (anon_sym_r_DQUOTE, MD True False False), (anon_sym_DOLLAR, MD True False False),
     (anon_sym_r_SQUOTE, MD True False False),
     (anon_sym_r_DQUOTE_DQUOTE_DQUOTE, MD True False False),
     (anon_sym_r_SQUOTE_SQUOTE_SQUOTE, MD True False False),
     (anon_sym_LBRACE, MD True False False), (anon_sym_RBRACE, MD True False False),
     (aux_sym__sub_string_test_token1, MD False False False),
     (sym__unused_escape_sequence, MD False True False), (anon_sym_LBRACK, MD True False False),
     (anon_sym_COMMA, MD True False False), (anon_sym_RBRACK, MD True False False),
     (anon_sym_COLON, MD True False False), (anon_sym_null, MD True False False),
     (anon_sym_LPAREN, MD True False False), (anon_sym_RPAREN, MD True False False),
     (anon_sym_throw, MD True False False), (anon_sym_EQ, MD True False False),
     (anon_sym_PLUS_EQ, MD True False False), (anon_sym_DASH_EQ, MD True False False),
     (anon_sym_STAR_EQ, MD True False False), (anon_sym_SLASH_EQ, MD True False False),
     (anon_sym_PERCENT_EQ, MD True False False), (anon_sym_TILDE_SLASH_EQ, MD True False False),
     (anon_sym_LT_LT_EQ, MD True False False)]"

definition ts_symbol_metadata_2 :: "(TSSymbol \<times> TSSymbolMetadata) list" where
  "ts_symbol_metadata_2 = [
     (anon_sym_GT_GT_EQ, MD True False False), (anon_sym_GT_GT_GT_EQ, MD True False False),
     (anon_sym_AMP_EQ, MD True False False), (anon_sym_CARET_EQ, MD True False False),
     (anon_sym_PIPE_EQ, MD True False False), (anon_sym_QMARK_QMARK_EQ, MD True False False),
     (anon_sym_QMARK_QMARK, MD True False False), (anon_sym_QMARK, MD True False False),
     (sym_equality_operator, MD True True False), (anon_sym_LT, MD True False False),
     (anon_sym_GT, MD True False False), (anon_sym_LT_EQ, MD True False False),
     (anon_sym_GT_EQ, MD True False False), (anon_sym_PIPE, MD True False False),
     (anon_sym_CARET, MD True False False), (anon_sym_AMP, MD True False False),
     (anon_sym_LT_LT, MD True False False), (anon_sym_GT_GT, MD True False False),
     (anon_sym_GT_GT_GT, MD True False False), (sym__additive_operator, MD False True False),
     (anon_sym_STAR, MD True False False), (anon_sym_SLASH, MD True False False),
     (anon_sym_PERCENT, MD True False False), (anon_sym_TILDE_SLASH, MD True False False),
     (sym_increment_operator, MD True True False), (anon_sym_DOT_DOT_DOT, MD True False False),
     (sym_minus_operator, MD True True False), (anon_sym_BANG, MD True False False),
     (anon_sym_TILDE, MD True False False), (anon_sym_await, MD True False False),
     (anon_sym_is, MD True False False), (anon_sym_as, MD True False False),
     (anon_sym_DOT, MD True False False), (anon_sym_QMARK_DOT, MD True False False),
     (anon_sym_DOT_DOT, MD True False False), (anon_sym_QMARK_DOT_DOT, MD True False False),
     (anon_sym_extends, MD True False False)]"

definition ts_symbol_metadata_3 :: "(TSSymbol \<times> TSSymbolMetadata) list" where
  "ts_symbol_metadata_3 = [
     (anon_sym_SEMI, MD True False False), (anon_sym_switch, MD True False False),
     (anon_sym_EQ_GT, MD True False False), (anon_sym_when, MD True False False),
     (anon_sym_default, MD True False False), (anon_sym_do, MD True False False),
     (anon_sym_while, MD True False False), (anon_sym_continue, MD True False False),
     (anon_sym_yield, MD True False False), (anon_sym_return, MD True False False),
     (anon_sym_on, MD True False False), (anon_sym_try, MD True False False),
     (anon_sym_catch, MD True False False), (anon_sym_finally, MD True False False),
     (anon_sym_if, MD True False False), (anon_sym_case, MD True False False),
     (anon_sym_else, MD True False False), (anon_sym_for, MD True False False),
     (anon_sym_in, MD True False False), (anon_sym_AT, MD True False False),
     (anon_sym_part, MD True False False), (anon_sym_EQ_EQ, MD True False False),
     (anon_sym_show, MD True False False), (anon_sym_hide, MD True False False),
     (anon_sym_enum, MD True False False), (anon_sym_final, MD True False False),
     (anon_sym_inline, MD True False False), (anon_sym_class, MD True False False),
     (anon_sym_extension, MD True False False), (anon_sym_with, MD True False False),
     (anon_sym_LBRACK_RBRACK, MD True False False),
     (anon_sym_LBRACK_RBRACK_EQ, MD True False False),
     (sym_floating_point_type, MD True True False), (anon_sym_bool, MD True False False),
     (sym_void_type, MD True True False), (anon_sym_var, MD True False False),
     (anon_sym_async, MD True False False)]"

definition ts_symbol_metadata_4 :: "(TSSymbol \<times> TSSymbolMetadata) list" where
  "ts_symbol_metadata_4 = [
     (anon_sym_async_STAR, MD True False False), (anon_sym_sync_STAR, MD True False False),
     (anon_sym_POUND_BANG, MD True False False),
     (aux_sym_script_tag_token1, MD False False False), (anon_sym_LF, MD True False False),
     (anon_sym_library, MD True False False), (sym_break_builtin, MD True True False),
     (sym_assert_builtin, MD True True False), (sym_rethrow_builtin, MD True True False),
     (sym_part_of_builtin, MD True True False), (anon_sym_covariant, MD True False False),
     (anon_sym_deferred, MD True False False), (anon_sym_dynamic, MD True False False),
     (anon_sym_export, MD True False False), (anon_sym_factory, MD True False False),
     (anon_sym_Function, MD True False False), (anon_sym_get, MD True False False),
     (anon_sym_native, MD True False False), (anon_sym_implements, MD True False False),
     (anon_sym_import, MD True False False), (anon_sym_interface, MD True False False),
     (anon_sym_base, MD True False False), (anon_sym_abstract, MD True False False),
     (anon_sym_sealed, MD True False False), (anon_sym_operator, MD True False False),
     (anon_sym_mixin, MD True False False), (anon_sym_required, MD True False False),
     (anon_sym_set, MD True False False), (anon_sym_static, MD True False False),
     (anon_sym_typedef, MD True False False), (anon_sym_new, MD True False False),
     (anon_sym_AMP_AMP, MD True False False), (anon_sym_PIPE_PIPE, MD True False False),
     (sym_const_builtin, MD True True False), (anon_sym_late, MD True False False),
     (anon_sym_external, MD True False False), (anon_sym_this, MD True False False)]"

definition ts_symbol_metadata_5 :: "(TSSymbol \<times> TSSymbolMetadata) list" where
  "ts_symbol_metadata_5 = [
     (anon_sym_super, MD True False False), (sym_identifier_dollar_escaped, MD True True False),
     (anon_sym_SLASH_SLASH, MD True False False), (aux_sym_comment_token1, MD False False False),
     (anon_sym_SLASH_STAR, MD True False False), (aux_sym_comment_token2, MD False False False),
     (anon_sym_SLASH_SLASH_SLASH, MD True False False),
     (aux_sym_documentation_comment_token1, MD False False False),
     (sym__template_chars_double, MD False True False),
     (sym__template_chars_single, MD False True False),
     (sym__template_chars_double_single, MD False True False),
     (sym__template_chars_single_single, MD False True False),
     (sym__template_chars_raw_slash, MD False True False),
     (sym__block_comment, MD False True False),
     (sym__documentation_block_comment, MD False True False), (sym_program, MD True True False),
     (sym__top_level_definition, MD False True False), (sym__bool_literal, MD False True False),
     (sym__numeric_literal, MD False True False), (sym__literal, MD False True True),
     (sym_symbol_literal, MD True True False), (sym_true, MD True True False),
     (sym_false, MD True True False), (sym_string_literal, MD True True False),
     (sym__string_literal_double_quotes, MD False True False),
     (sym__string_literal_single_quotes, MD False True False),
     (sym__string_literal_double_quotes_multiple, MD False True False),
     (sym__string_literal_single_quotes_multiple, MD False True False),
     (sym__raw_string_literal_double_quotes, MD False True False),
     (sym__raw_string_literal_single_quotes, MD False True False),
     (sym__raw_string_literal_double_quotes_multiple, MD False True False),
     (sym__raw_string_literal_single_quotes_multiple, MD False True False),
     (sym_template_substitution, MD True True False),
     (sym__sub_string_test, MD False True False), (sym_escape_sequence, MD True True False),
     (sym_list_literal, MD True True False), (sym_set_or_map_literal, MD True True False)]"

definition ts_symbol_metadata_6 :: "(TSSymbol \<times> TSSymbolMetadata) list" where
  "ts_symbol_metadata_6 = [
     (sym_pair, MD True True False), (sym__element, MD False True False),
     (sym_null_literal, MD True True False), (sym_record_literal, MD True True False),
     (sym__record_literal_no_const, MD False True False), (sym_record_field, MD True True False),
     (sym__expression, MD False True False),
     (sym__expression_without_cascade, MD False True False),
     (sym__real_expression, MD False True False), (sym_throw_expression, MD True True False),
     (sym_throw_expression_without_cascade, MD True True False),
     (sym_rethrow_expression, MD True True False),
     (sym_assignment_expression, MD True True False),
     (sym_assignment_expression_without_cascade, MD True True False),
     (sym_assignable_expression, MD True True False),
     (sym__assignable_selector_part, MD False True False),
     (sym__assignment_operator, MD False True False),
     (sym_lambda_expression, MD True True False), (sym_function_expression, MD True True False),
     (sym_if_null_expression, MD True True False),
     (aux_sym__if_null_expression, MD False False False),
     (sym_conditional_expression, MD True True False),
     (sym_logical_or_expression, MD True True False),
     (sym_logical_and_expression, MD True True False),
     (sym_equality_expression, MD True True False),
     (sym_type_cast_expression, MD True True False),
     (sym_type_test_expression, MD True True False),
     (sym_relational_expression, MD True True False),
     (sym_relational_operator, MD True True False),
     (sym_bitwise_or_expression, MD True True False),
     (sym_bitwise_xor_expression, MD True True False),
     (sym_bitwise_and_expression, MD True True False),
     (sym_shift_expression, MD True True False), (sym_additive_expression, MD True True False),
     (sym_multiplicative_expression, MD True True False),
     (sym_bitwise_operator, MD True True False), (sym__bitwise_operator, MD False True False)]"

definition ts_symbol_metadata_7 :: "(TSSymbol \<times> TSSymbolMetadata) list" where
  "ts_symbol_metadata_7 = [
     (sym_shift_operator, MD True True False), (sym__shift_operator, MD False True False),
     (sym_additive_operator, MD True True False),
     (sym_multiplicative_operator, MD True True False),
     (sym__multiplicative_operator, MD False True False),
     (sym__unary_expression, MD False True False), (sym_unary_expression, MD True True False),
     (sym__postfix_expression, MD False True False),
     (sym_postfix_expression, MD True True False), (sym_postfix_operator, MD True True False),
     (sym_spread_element, MD True True False), (sym_selector, MD True True False),
     (sym_prefix_operator, MD True True False), (sym_negation_operator, MD True True False),
     (sym__exclamation_operator, MD False True False), (sym_tilde_operator, MD True True False),
     (sym_await_expression, MD True True False), (sym_type_test, MD True True False),
     (sym_is_operator, MD True True False), (sym_type_cast, MD True True False),
     (sym_as_operator, MD True True False), (sym_new_expression, MD True True False),
     (sym__dot_identifier, MD False True False),
     (sym_const_object_expression, MD True True False), (sym__primary, MD False True False),
     (sym_parenthesized_expression, MD True True False),
     (sym_constructor_invocation, MD True True False),
     (sym_constructor_tearoff, MD True True False), (sym_arguments, MD True True False),
     (sym__argument_list, MD False True False), (sym__any_argument, MD False True False),
     (sym_argument, MD True True False), (sym_named_argument, MD True True False),
     (sym_cascade_section, MD True True False), (sym__cascade_subsection, MD False True False),
     (sym__cascade_assignment_section, MD False True False),
     (sym_index_selector, MD True True False)]"

definition ts_symbol_metadata_8 :: "(TSSymbol \<times> TSSymbolMetadata) list" where
  "ts_symbol_metadata_8 = [
     (sym_cascade_selector, MD True True False), (sym_argument_part, MD True True False),
     (sym_unconditional_assignable_selector, MD True True False),
     (sym_conditional_assignable_selector, MD True True False),
     (sym__assignable_selector, MD False True False), (sym_type_arguments, MD True True False),
     (sym__statement, MD False True True), (sym_local_function_declaration, MD True True False),
     (sym_block, MD True True False), (sym_expression_statement, MD True True False),
     (sym_assert_statement, MD True True False), (sym_assertion, MD True True False),
     (sym_assertion_arguments, MD True True False), (sym_switch_statement, MD True True False),
     (sym_switch_expression, MD True True False),
     (sym_switch_expression_case, MD True True False),
     (sym__guarded_pattern, MD False True False), (sym__pattern, MD False True False),
     (sym__logical_or_pattern, MD False True False),
     (sym__logical_and_pattern, MD False True False),
     (sym__relational_pattern, MD False True False), (sym__unary_pattern, MD False True False),
     (sym__primary_pattern, MD False True False), (sym_cast_pattern, MD True True False),
     (sym_null_check_pattern, MD True True False), (sym_null_assert_pattern, MD True True False),
     (sym_constant_pattern, MD True True False), (sym_variable_pattern, MD True True False),
     (sym__parenthesized_pattern, MD False True False), (sym_list_pattern, MD True True False),
     (sym__list_pattern_element, MD False True False), (sym_rest_pattern, MD True True False),
     (sym_map_pattern, MD True True False), (sym__map_pattern_entry, MD False True False),
     (sym_record_pattern, MD True True False), (sym__pattern_field, MD False True False),
     (sym_object_pattern, MD True True False)]"

definition ts_symbol_metadata_9 :: "(TSSymbol \<times> TSSymbolMetadata) list" where
  "ts_symbol_metadata_9 = [
     (sym_pattern_variable_declaration, MD True True False),
     (sym__outer_pattern, MD False True False), (sym_pattern_assignment, MD True True False),
     (sym_switch_block, MD True True False), (sym_switch_statement_case, MD True True False),
     (sym_switch_statement_default, MD True True False), (sym_do_statement, MD True True False),
     (sym_break_statement, MD True True False), (sym_continue_statement, MD True True False),
     (sym_yield_statement, MD True True False), (sym_yield_each_statement, MD True True False),
     (sym_return_statement, MD True True False), (sym_try_statement, MD True True False),
     (sym__on_part, MD False True False), (sym__try_head, MD False True False),
     (sym_catch_clause, MD True True False), (sym_catch_parameters, MD True True False),
     (sym_finally_clause, MD True True False), (sym_if_element, MD True True False),
     (sym_if_statement, MD True True False), (sym_while_statement, MD True True False),
     (sym_for_statement, MD True True False), (sym_for_loop_parts, MD True True False),
     (sym__for_loop_parts, MD False True False), (sym_for_element, MD True True False),
     (sym_annotation, MD True True False), (sym_import_or_export, MD True True False),
     (sym_library_import, MD True True False), (sym_library_export, MD True True False),
     (sym_import_specification, MD True True False), (sym_part_directive, MD True True False),
     (sym_part_of_directive, MD True True False), (sym_uri, MD True True False),
     (sym_configurable_uri, MD True True False), (sym_configuration_uri, MD True True False),
     (sym_configuration_uri_condition, MD True True False), (sym_uri_test, MD True True False)]"

definition ts_symbol_metadata_10 :: "(TSSymbol \<times> TSSymbolMetadata) list" where
  "ts_symbol_metadata_10 = [
     (sym_combinator, MD True True False), (sym__identifier_list, MD False True False),
     (sym_enum_declaration, MD True True False), (sym_enum_body, MD True True False),
     (sym_enum_constant, MD True True False), (sym_type_alias, MD True True False),
     (sym__class_modifiers, MD False True False),
     (sym__mixin_class_modifiers, MD False True False),
     (sym_class_definition, MD True True False), (sym_extension_declaration, MD True True False),
     (sym__metadata, MD False True False), (sym_type_parameters, MD True True False),
     (sym_type_parameter, MD True True False), (sym_type_bound, MD True True False),
     (sym_superclass, MD True True False), (sym_mixins, MD True True False),
     (sym_mixin_application_class, MD True True False),
     (sym_mixin_application, MD True True False), (sym_mixin_declaration, MD True True False),
     (sym_interfaces, MD True True False), (sym_class_body, MD True True False),
     (sym_extension_body, MD True True False), (sym_getter_signature, MD True True False),
     (sym_setter_signature, MD True True False), (sym_method_signature, MD True True False),
     (sym_declaration, MD True True False), (sym_identifier_list, MD True True False),
     (sym_initialized_identifier_list, MD True True False),
     (sym_initialized_identifier, MD True True False),
     (sym_static_final_declaration_list, MD True True False),
     (sym_binary_operator, MD True True False), (sym_operator_signature, MD True True False),
     (sym_static_final_declaration, MD True True False),
     (sym__external_and_static, MD False True False), (sym__final_or_const, MD False True False),
     (sym_initializers, MD True True False), (sym_initializer_list_entry, MD True True False)]"

definition ts_symbol_metadata_11 :: "(TSSymbol \<times> TSSymbolMetadata) list" where
  "ts_symbol_metadata_11 = [
     (sym_field_initializer, MD True True False),
     (sym_factory_constructor_signature, MD True True False),
     (sym_redirecting_factory_constructor_signature, MD True True False),
     (sym_redirection, MD True True False), (sym_constructor_signature, MD True True False),
     (sym_constant_constructor_signature, MD True True False),
     (sym_scoped_identifier, MD True True False),
     (sym_initialized_variable_definition, MD True True False),
     (sym__declared_identifier, MD False True False),
     (sym__final_const_var_or_type, MD False True False), (sym__type, MD False True False),
     (sym__type_not_function, MD False True False),
     (sym__type_not_void_not_function, MD False True False),
     (sym_function_type, MD True True False),
     (aux_sym__function_type_tails, MD False False False),
     (sym__function_type_tail, MD False True False),
     (sym_parameter_type_list, MD True True False),
     (sym_normal_parameter_type, MD True True False),
     (sym_optional_parameter_types, MD True True False),
     (sym_optional_positional_parameter_types, MD True True False),
     (sym_named_parameter_types, MD True True False),
     (sym__named_parameter_type, MD False True False), (sym__type_not_void, MD False True False),
     (sym_record_type, MD True True False), (sym_record_type_field, MD True True False),
     (sym_record_type_named_field, MD True True False),
     (sym__type_not_void_list, MD False True False), (sym__type_name, MD False True False),
     (sym__type_dot_identifier, MD False True False), (sym_typed_identifier, MD True True False),
     (sym_nullable_type, MD True True False), (sym_nullable_selector, MD True True False),
     (sym__var_or_type, MD False True False), (sym__final_var_or_type, MD False True False),
     (sym_inferred_type, MD True True False), (sym_function_body, MD True True False),
     (sym_function_expression_body, MD True True False)]"

definition ts_symbol_metadata_12 :: "(TSSymbol \<times> TSSymbolMetadata) list" where
  "ts_symbol_metadata_12 = [
     (sym_function_signature, MD True True False),
     (sym__formal_parameter_part, MD False True False),
     (sym_formal_parameter_list, MD True True False),
     (sym__strict_formal_parameter_list, MD False True False),
     (sym__normal_formal_parameters, MD False True False),
     (sym_optional_formal_parameters, MD True True False),
     (sym__optional_postional_formal_parameters, MD False True False),
     (sym__named_formal_parameters, MD False True False),
     (sym_formal_parameter, MD True True False),
     (sym__default_formal_parameter, MD False True False),
     (sym__default_named_parameter, MD False True False),
     (sym__normal_formal_parameter, MD False True False),
     (sym__function_formal_parameter, MD False True False),
     (sym__simple_formal_parameter, MD False True False),
     (sym_super_formal_parameter, MD True True False),
     (sym_constructor_param, MD True True False),
     (sym_local_variable_declaration, MD True True False), (sym_script_tag, MD True True False),
     (sym_library_name, MD True True False), (sym_dotted_identifier_list, MD True True False),
     (sym__identifier_or_new, MD False True False), (sym_qualified, MD True True False),
     (sym__as, MD False True False), (sym_case_builtin, MD True True False),
     (sym__covariant, MD False True False), (sym__deferred, MD False True False),
     (sym__export, MD False True False), (sym__external, MD False True False),
     (sym__factory, MD False True False),
     (sym__function_builtin_identifier, MD False True False), (sym__get, MD False True False),
     (sym__native, MD False True False), (sym__implements, MD False True False),
     (sym__import, MD False True False), (sym_interface, MD True True False),
     (sym_base, MD True True False), (sym_abstract, MD True True False)]"

definition ts_symbol_metadata_13 :: "(TSSymbol \<times> TSSymbolMetadata) list" where
  "ts_symbol_metadata_13 = [
     (sym_sealed, MD True True False), (sym__operator, MD False True False),
     (sym_mixin, MD True True False), (sym__required, MD False True False),
     (sym__set, MD False True False), (sym__static, MD False True False),
     (sym__typedef, MD False True False), (sym__new_builtin, MD False True False),
     (sym_logical_and_operator, MD True True False),
     (sym_logical_or_operator, MD True True False), (sym_final_builtin, MD True True False),
     (sym__late_builtin, MD False True False), (sym__external_builtin, MD False True False),
     (sym_this, MD True True False), (sym_super, MD True True False),
     (sym_label, MD True True False), (sym__semicolon, MD False True False),
     (sym_comment, MD True True False), (sym_documentation_comment, MD True True False),
     (aux_sym_program_repeat1, MD False False False),
     (aux_sym_program_repeat2, MD False False False),
     (aux_sym_program_repeat3, MD False False False),
     (aux_sym_program_repeat4, MD False False False),
     (aux_sym_string_literal_repeat1, MD False False False),
     (aux_sym__string_literal_double_quotes_repeat1, MD False False False),
     (aux_sym__string_literal_single_quotes_repeat1, MD False False False),
     (aux_sym__string_literal_double_quotes_multiple_repeat1, MD False False False),
     (aux_sym__string_literal_single_quotes_multiple_repeat1, MD False False False),
     (aux_sym__raw_string_literal_double_quotes_repeat1, MD False False False),
     (aux_sym__raw_string_literal_single_quotes_repeat1, MD False False False),
     (aux_sym__raw_string_literal_double_quotes_multiple_repeat1, MD False False False),
     (aux_sym__raw_string_literal_single_quotes_multiple_repeat1, MD False False False),
     (aux_sym_list_literal_repeat1, MD False False False),
     (aux_sym__record_literal_no_const_repeat1, MD False False False),
     (aux_sym__expression_repeat1, MD False False False),
     (aux_sym__assignable_selector_part_repeat1, MD False False False),
     (aux_sym_inferred_parameters_repeat1, MD False False False)]"

definition ts_symbol_metadata_14 :: "(TSSymbol \<times> TSSymbolMetadata) list" where
  "ts_symbol_metadata_14 = [
     (aux_sym_logical_or_expression_repeat1, MD False False False),
     (aux_sym_logical_and_expression_repeat1, MD False False False),
     (aux_sym_bitwise_or_expression_repeat1, MD False False False),
     (aux_sym_bitwise_xor_expression_repeat1, MD False False False),
     (aux_sym_bitwise_and_expression_repeat1, MD False False False),
     (aux_sym_shift_expression_repeat1, MD False False False),
     (aux_sym_additive_expression_repeat1, MD False False False),
     (aux_sym_multiplicative_expression_repeat1, MD False False False),
     (aux_sym__argument_list_repeat1, MD False False False),
     (aux_sym_cascade_section_repeat1, MD False False False),
     (aux_sym_cascade_section_repeat2, MD False False False),
     (aux_sym_type_arguments_repeat1, MD False False False),
     (aux_sym_block_repeat1, MD False False False),
     (aux_sym_switch_expression_repeat1, MD False False False),
     (aux_sym__logical_or_pattern_repeat1, MD False False False),
     (aux_sym__logical_and_pattern_repeat1, MD False False False),
     (aux_sym_list_pattern_repeat1, MD False False False),
     (aux_sym_map_pattern_repeat1, MD False False False),
     (aux_sym_record_pattern_repeat1, MD False False False),
     (aux_sym_switch_block_repeat1, MD False False False),
     (aux_sym_switch_statement_case_repeat1, MD False False False),
     (aux_sym_try_statement_repeat1, MD False False False),
     (aux_sym__for_loop_parts_repeat1, MD False False False),
     (aux_sym__for_loop_parts_repeat2, MD False False False),
     (aux_sym_library_export_repeat1, MD False False False),
     (aux_sym_configurable_uri_repeat1, MD False False False),
     (aux_sym_enum_body_repeat1, MD False False False),
     (aux_sym_enum_body_repeat2, MD False False False),
     (aux_sym__metadata_repeat1, MD False False False),
     (aux_sym_type_parameters_repeat1, MD False False False),
     (aux_sym_extension_body_repeat1, MD False False False),
     (aux_sym_initialized_identifier_list_repeat1, MD False False False),
     (aux_sym_static_final_declaration_list_repeat1, MD False False False),
     (aux_sym_initializers_repeat1, MD False False False),
     (aux_sym_factory_constructor_signature_repeat1, MD False False False),
     (aux_sym_parameter_type_list_repeat1, MD False False False),
     (aux_sym_named_parameter_types_repeat1, MD False False False)]"

definition ts_symbol_metadata_15 :: "(TSSymbol \<times> TSSymbolMetadata) list" where
  "ts_symbol_metadata_15 = [
     (aux_sym_record_type_repeat1, MD False False False),
     (aux_sym_record_type_repeat2, MD False False False),
     (aux_sym__type_not_void_list_repeat1, MD False False False),
     (aux_sym__normal_formal_parameters_repeat1, MD False False False),
     (aux_sym_positional_parameters_repeat1, MD False False False),
     (aux_sym__named_formal_parameters_repeat1, MD False False False),
     (alias_sym_type_identifier, MD True True False)]"

definition ts_symbol_metadata_table :: "(TSSymbol \<times> TSSymbolMetadata) list" where
  "ts_symbol_metadata_table = ts_symbol_metadata_1 @ ts_symbol_metadata_2 @ ts_symbol_metadata_3 @ ts_symbol_metadata_4 @
     ts_symbol_metadata_5 @ ts_symbol_metadata_6 @ ts_symbol_metadata_7 @ ts_symbol_metadata_8 @
     ts_symbol_metadata_9 @ ts_symbol_metadata_10 @ ts_symbol_metadata_11 @ ts_symbol_metadata_12 @
     ts_symbol_metadata_13 @ ts_symbol_metadata_14 @ ts_symbol_metadata_15"

definition ts_symbol_metadata :: "TSSymbol \<rightharpoonup> TSSymbolMetadata" where
  "ts_symbol_metadata = map_of ts_symbol_metadata_table"

lemma ts_symbol_metadata_keys:
  "map fst ts_symbol_metadata_1 = [0..<37]"
  "map fst ts_symbol_metadata_2 = [37..<74]"
  "map fst ts_symbol_metadata_3 = [74..<111]"
  "map fst ts_symbol_metadata_4 = [111..<148]"
  "map fst ts_symbol_metadata_5 = [148..<185]"
  "map fst ts_symbol_metadata_6 = [185..<222]"
  "map fst ts_symbol_metadata_7 = [222..<259]"
  "map fst ts_symbol_metadata_8 = [259..<296]"
  "map fst ts_symbol_metadata_9 = [296..<333]"
  "map fst ts_symbol_metadata_10 = [333..<370]"
  "map fst ts_symbol_metadata_11 = [370..<407]"
  "map fst ts_symbol_metadata_12 = [407..<444]"
  "map fst ts_symbol_metadata_13 = [444..<481]"
  "map fst ts_symbol_metadata_14 = [481..<518]"
  "map fst ts_symbol_metadata_15 = [518..<525]"
  by (simp add: ts_symbol_metadata_1_def upt_from_0)
    (simp_all add: ts_symbol_metadata_2_def ts_symbol_metadata_3_def ts_symbol_metadata_4_def ts_symbol_metadata_5_def
    ts_symbol_metadata_6_def ts_symbol_metadata_7_def ts_symbol_metadata_8_def ts_symbol_metadata_9_def
    ts_symbol_metadata_10_def ts_symbol_metadata_11_def ts_symbol_metadata_12_def ts_symbol_metadata_13_def
    ts_symbol_metadata_14_def ts_symbol_metadata_15_def)

lemma ts_symbol_metadata_keys_all: "map fst ts_symbol_metadata_table = [0..<525]"
  by (simp add: ts_symbol_metadata_table_def ts_symbol_metadata_keys upt_join del: upt_rec_numeral)

subsection \<open>The tables as equations\<close>

lemma ts_symbol_names_eqs_blocks:
  "list_all (\<lambda>(k, x). ts_symbol_names k = Some x) ts_symbol_names_1"
  "list_all (\<lambda>(k, x). ts_symbol_names k = Some x) ts_symbol_names_2"
  "list_all (\<lambda>(k, x). ts_symbol_names k = Some x) ts_symbol_names_3"
  "list_all (\<lambda>(k, x). ts_symbol_names k = Some x) ts_symbol_names_4"
  using map_of_all [of ts_symbol_names_table, unfolded ts_symbol_names_keys_all, OF distinct_upt, folded ts_symbol_names_def]
  by (simp_all add: ts_symbol_names_table_def list_all_append)

lemmas ts_symbol_names_eqs [simp] =
  ts_symbol_names_eqs_blocks(1) [unfolded ts_symbol_names_1_def list_all_tens prod.case One_nat_def]
  ts_symbol_names_eqs_blocks(2) [unfolded ts_symbol_names_2_def list_all_tens prod.case One_nat_def]
  ts_symbol_names_eqs_blocks(3) [unfolded ts_symbol_names_3_def list_all_tens prod.case One_nat_def]
  ts_symbol_names_eqs_blocks(4) [unfolded ts_symbol_names_4_def list_all_tens prod.case One_nat_def]

lemma ts_symbol_map_eqs_blocks:
  "list_all (\<lambda>(k, x). ts_symbol_map k = Some x) ts_symbol_map_1"
  "list_all (\<lambda>(k, x). ts_symbol_map k = Some x) ts_symbol_map_2"
  "list_all (\<lambda>(k, x). ts_symbol_map k = Some x) ts_symbol_map_3"
  "list_all (\<lambda>(k, x). ts_symbol_map k = Some x) ts_symbol_map_4"
  using map_of_all [of ts_symbol_map_table, unfolded ts_symbol_map_keys_all, OF distinct_upt, folded ts_symbol_map_def]
  by (simp_all add: ts_symbol_map_table_def list_all_append)

lemmas ts_symbol_map_eqs [simp] =
  ts_symbol_map_eqs_blocks(1) [unfolded ts_symbol_map_1_def list_all_tens prod.case One_nat_def]
  ts_symbol_map_eqs_blocks(2) [unfolded ts_symbol_map_2_def list_all_tens prod.case One_nat_def]
  ts_symbol_map_eqs_blocks(3) [unfolded ts_symbol_map_3_def list_all_tens prod.case One_nat_def]
  ts_symbol_map_eqs_blocks(4) [unfolded ts_symbol_map_4_def list_all_tens prod.case One_nat_def]

lemma ts_symbol_metadata_eqs_blocks:
  "list_all (\<lambda>(k, x). ts_symbol_metadata k = Some x) ts_symbol_metadata_1"
  "list_all (\<lambda>(k, x). ts_symbol_metadata k = Some x) ts_symbol_metadata_2"
  "list_all (\<lambda>(k, x). ts_symbol_metadata k = Some x) ts_symbol_metadata_3"
  "list_all (\<lambda>(k, x). ts_symbol_metadata k = Some x) ts_symbol_metadata_4"
  "list_all (\<lambda>(k, x). ts_symbol_metadata k = Some x) ts_symbol_metadata_5"
  "list_all (\<lambda>(k, x). ts_symbol_metadata k = Some x) ts_symbol_metadata_6"
  "list_all (\<lambda>(k, x). ts_symbol_metadata k = Some x) ts_symbol_metadata_7"
  "list_all (\<lambda>(k, x). ts_symbol_metadata k = Some x) ts_symbol_metadata_8"
  "list_all (\<lambda>(k, x). ts_symbol_metadata k = Some x) ts_symbol_metadata_9"
  "list_all (\<lambda>(k, x). ts_symbol_metadata k = Some x) ts_symbol_metadata_10"
  "list_all (\<lambda>(k, x). ts_symbol_metadata k = Some x) ts_symbol_metadata_11"
  "list_all (\<lambda>(k, x). ts_symbol_metadata k = Some x) ts_symbol_metadata_12"
  "list_all (\<lambda>(k, x). ts_symbol_metadata k = Some x) ts_symbol_metadata_13"
  "list_all (\<lambda>(k, x). ts_symbol_metadata k = Some x) ts_symbol_metadata_14"
  "list_all (\<lambda>(k, x). ts_symbol_metadata k = Some x) ts_symbol_metadata_15"
  using map_of_all [of ts_symbol_metadata_table, unfolded ts_symbol_metadata_keys_all, OF distinct_upt, folded ts_symbol_metadata_def]
  by (simp_all add: ts_symbol_metadata_table_def list_all_append)

lemmas ts_symbol_metadata_eqs [simp] =
  ts_symbol_metadata_eqs_blocks(1) [unfolded ts_symbol_metadata_1_def list_all_tens prod.case One_nat_def]
  ts_symbol_metadata_eqs_blocks(2) [unfolded ts_symbol_metadata_2_def list_all_tens prod.case One_nat_def]
  ts_symbol_metadata_eqs_blocks(3) [unfolded ts_symbol_metadata_3_def list_all_tens prod.case One_nat_def]
  ts_symbol_metadata_eqs_blocks(4) [unfolded ts_symbol_metadata_4_def list_all_tens prod.case One_nat_def]
  ts_symbol_metadata_eqs_blocks(5) [unfolded ts_symbol_metadata_5_def list_all_tens prod.case One_nat_def]
  ts_symbol_metadata_eqs_blocks(6) [unfolded ts_symbol_metadata_6_def list_all_tens prod.case One_nat_def]
  ts_symbol_metadata_eqs_blocks(7) [unfolded ts_symbol_metadata_7_def list_all_tens prod.case One_nat_def]
  ts_symbol_metadata_eqs_blocks(8) [unfolded ts_symbol_metadata_8_def list_all_tens prod.case One_nat_def]
  ts_symbol_metadata_eqs_blocks(9) [unfolded ts_symbol_metadata_9_def list_all_tens prod.case One_nat_def]
  ts_symbol_metadata_eqs_blocks(10) [unfolded ts_symbol_metadata_10_def list_all_tens prod.case One_nat_def]
  ts_symbol_metadata_eqs_blocks(11) [unfolded ts_symbol_metadata_11_def list_all_tens prod.case One_nat_def]
  ts_symbol_metadata_eqs_blocks(12) [unfolded ts_symbol_metadata_12_def list_all_tens prod.case One_nat_def]
  ts_symbol_metadata_eqs_blocks(13) [unfolded ts_symbol_metadata_13_def list_all_tens prod.case One_nat_def]
  ts_symbol_metadata_eqs_blocks(14) [unfolded ts_symbol_metadata_14_def list_all_tens prod.case One_nat_def]
  ts_symbol_metadata_eqs_blocks(15) [unfolded ts_symbol_metadata_15_def list_all_tens prod.case One_nat_def]

subsection \<open>Consistency\<close>

lemma public_map_blocks:
  "list_all (\<lambda>(s, t). t = s) ts_symbol_map_1" "list_all (\<lambda>(s, t). t = s) ts_symbol_map_2"
  "list_all (\<lambda>(s, t). t = s) ts_symbol_map_3" "list_all (\<lambda>(s, t). t = s) ts_symbol_map_4"
  by (simp_all add: ts_symbol_map_1_def ts_symbol_map_2_def ts_symbol_map_3_def ts_symbol_map_4_def)

text \<open>
  C26. The public symbol map identifies no symbols: it is the identity on the symbols of the grammar
  and its alias symbols, and undefined elsewhere.
\<close>

theorem public_map_identity:
  "ts_symbol_map s = (if s < SYMBOL_COUNT + ALIAS_COUNT then Some s else None)"
proof (cases "ts_symbol_map s")
  case None
  then show ?thesis
    using map_of_upt_keys [OF ts_symbol_map_keys_all, of s] by (auto simp: ts_symbol_map_def)
next
  case (Some t)
  have "list_all (\<lambda>(s, t). t = s) ts_symbol_map_table"
    by (simp add: ts_symbol_map_table_def public_map_blocks)
  from map_of_list_all [OF this, of s t] Some have "t = s" by (simp add: ts_symbol_map_def)
  with Some show ?thesis
    using map_of_upt_keys [OF ts_symbol_map_keys_all, of s] by (auto simp: ts_symbol_map_def)
qed

text \<open>
  The convention for the names: a visible named symbol has a name of its own, a hidden named symbol
  (a hidden rule, a supertype) a name that starts with an underscore, an anonymous visible symbol is
  a token.
\<close>

definition hidden_name :: "string \<Rightarrow> bool" where
  "hidden_name n \<longleftrightarrow> (case n of [] \<Rightarrow> False | c # _ \<Rightarrow> c = CHR ''_'')"

definition metadata_ok :: "TSSymbol \<Rightarrow> TSSymbolMetadata \<Rightarrow> bool" where
  "metadata_ok s md \<longleftrightarrow>
     (case ts_symbol_names s of
        None \<Rightarrow> False
      | Some n \<Rightarrow>
          (named md \<and> s \<noteq> ts_builtin_sym_end \<longrightarrow> visible md = (\<not> hidden_name n)) \<and>
          (visible md \<and> \<not> named md \<longrightarrow> s < TOKEN_COUNT) \<and>
          (supertype md \<longrightarrow> named md \<and> \<not> visible md \<and> TOKEN_COUNT \<le> s))"

lemmas metadata_simps = metadata_ok_def hidden_name_def

lemma metadata_ok_1: "list_all (\<lambda>(s, md). metadata_ok s md) ts_symbol_metadata_1"
  by (simp add: metadata_simps ts_symbol_metadata_1_def)

lemma metadata_ok_2: "list_all (\<lambda>(s, md). metadata_ok s md) ts_symbol_metadata_2"
  by (simp add: metadata_simps ts_symbol_metadata_2_def)

lemma metadata_ok_3: "list_all (\<lambda>(s, md). metadata_ok s md) ts_symbol_metadata_3"
  by (simp add: metadata_simps ts_symbol_metadata_3_def)

lemma metadata_ok_4: "list_all (\<lambda>(s, md). metadata_ok s md) ts_symbol_metadata_4"
  by (simp add: metadata_simps ts_symbol_metadata_4_def)

lemma metadata_ok_5: "list_all (\<lambda>(s, md). metadata_ok s md) ts_symbol_metadata_5"
  by (simp add: metadata_simps ts_symbol_metadata_5_def)

lemma metadata_ok_6: "list_all (\<lambda>(s, md). metadata_ok s md) ts_symbol_metadata_6"
  by (simp add: metadata_simps ts_symbol_metadata_6_def)

lemma metadata_ok_7: "list_all (\<lambda>(s, md). metadata_ok s md) ts_symbol_metadata_7"
  by (simp add: metadata_simps ts_symbol_metadata_7_def)

lemma metadata_ok_8: "list_all (\<lambda>(s, md). metadata_ok s md) ts_symbol_metadata_8"
  by (simp add: metadata_simps ts_symbol_metadata_8_def)

lemma metadata_ok_9: "list_all (\<lambda>(s, md). metadata_ok s md) ts_symbol_metadata_9"
  by (simp add: metadata_simps ts_symbol_metadata_9_def)

lemma metadata_ok_10: "list_all (\<lambda>(s, md). metadata_ok s md) ts_symbol_metadata_10"
  by (simp add: metadata_simps ts_symbol_metadata_10_def)

lemma metadata_ok_11: "list_all (\<lambda>(s, md). metadata_ok s md) ts_symbol_metadata_11"
  by (simp add: metadata_simps ts_symbol_metadata_11_def)

lemma metadata_ok_12: "list_all (\<lambda>(s, md). metadata_ok s md) ts_symbol_metadata_12"
  by (simp add: metadata_simps ts_symbol_metadata_12_def)

lemma metadata_ok_13: "list_all (\<lambda>(s, md). metadata_ok s md) ts_symbol_metadata_13"
  by (simp add: metadata_simps ts_symbol_metadata_13_def)

lemma metadata_ok_14: "list_all (\<lambda>(s, md). metadata_ok s md) ts_symbol_metadata_14"
  by (simp add: metadata_simps ts_symbol_metadata_14_def)

lemma metadata_ok_15: "list_all (\<lambda>(s, md). metadata_ok s md) ts_symbol_metadata_15"
  by (simp add: metadata_simps ts_symbol_metadata_15_def)

lemma metadata_ok_all: "list_all (\<lambda>(s, md). metadata_ok s md) ts_symbol_metadata_table"
  by (simp add: ts_symbol_metadata_table_def metadata_ok_1 metadata_ok_2 metadata_ok_3 metadata_ok_4 metadata_ok_5 metadata_ok_6
    metadata_ok_7 metadata_ok_8 metadata_ok_9 metadata_ok_10 metadata_ok_11 metadata_ok_12
    metadata_ok_13 metadata_ok_14 metadata_ok_15)

text \<open>
  C25. Names and metadata agree, for every symbol of the grammar and its aliases: every symbol has a
  name and metadata; a named symbol other than the end of the file is visible exactly when its name
  does not start with an underscore; visible symbols without a name of their own are tokens; the
  supertypes are hidden named non-terminals.
\<close>

theorem symbol_metadata_consistent:
  assumes "s < SYMBOL_COUNT + ALIAS_COUNT"
  shows "\<exists>md. ts_symbol_metadata s = Some md \<and> metadata_ok s md"
proof -
  from assms obtain md where md: "ts_symbol_metadata s = Some md"
    using map_of_upt_keys [OF ts_symbol_metadata_keys_all, of s] by (auto simp: ts_symbol_metadata_def)
  with map_of_list_all [OF metadata_ok_all, of s md] show ?thesis by (simp add: ts_symbol_metadata_def)
qed

theorem symbol_metadata_consistent_witness:
  "\<exists>md. ts_symbol_metadata sym__literal = Some md \<and> metadata_ok sym__literal md"
  by (rule symbol_metadata_consistent) simp

end
