(* ===== verification/Dart_Primary.thy ===== *)
theory Dart_Primary
  imports Dart_Symbols
begin

text \<open>
  The table \<^verbatim>\<open>ts_primary_state_ids\<close> of \<^verbatim>\<open>parser.c\<close>: for every parse state the first state with the same
  core, which the runtime uses to tell states apart. Blocks of 150 entries, each with its index.
\<close>

subsection \<open>The table\<close>

definition ts_primary_state_ids_1 :: "(TSStateId \<times> TSStateId) list" where
  "ts_primary_state_ids_1 = [
     (0, 0), (1, 1), (2, 2), (3, 2), (4, 2), (5, 5), (6, 6), (7, 7), (8, 8), (9, 9), (10, 10),
     (11, 11), (12, 12), (13, 13), (14, 14), (15, 14), (16, 16), (17, 17), (18, 14), (19, 19),
     (20, 14), (21, 14), (22, 22), (23, 16), (24, 16), (25, 16), (26, 26), (27, 16), (28, 28),
     (29, 29), (30, 30), (31, 29), (32, 32), (33, 33), (34, 34), (35, 35), (36, 33), (37, 37),
     (38, 35), (39, 30), (40, 32), (41, 28), (42, 34), (43, 43), (44, 43), (45, 45), (46, 46),
     (47, 46), (48, 48), (49, 49), (50, 49), (51, 51), (52, 52), (53, 51), (54, 52), (55, 51),
     (56, 52), (57, 57), (58, 57), (59, 57), (60, 57), (61, 61), (62, 62), (63, 63), (64, 64),
     (65, 65), (66, 66), (67, 66), (68, 66), (69, 66), (70, 70), (71, 71), (72, 72), (73, 73),
     (74, 72), (75, 73), (76, 73), (77, 72), (78, 78), (79, 79), (80, 80), (81, 78), (82, 82),
     (83, 83), (84, 84), (85, 85), (86, 86), (87, 87), (88, 88), (89, 89), (90, 90), (91, 86),
     (92, 85), (93, 93), (94, 94), (95, 95), (96, 96), (97, 97), (98, 98), (99, 99), (100, 95),
     (101, 94), (102, 102), (103, 82), (104, 104), (105, 80), (106, 78), (107, 82), (108, 108),
     (109, 102), (110, 102), (111, 83), (112, 84), (113, 85), (114, 86), (115, 104), (116, 80),
     (117, 94), (118, 118), (119, 104), (120, 93), (121, 97), (122, 98), (123, 86), (124, 124),
     (125, 85), (126, 126), (127, 97), (128, 97), (129, 98), (130, 102), (131, 98), (132, 93),
     (133, 95), (134, 95), (135, 93), (136, 104), (137, 137), (138, 138), (139, 94), (140, 80),
     (141, 83), (142, 78), (143, 82), (144, 144), (145, 145), (146, 146), (147, 83), (148, 84),
     (149, 84)]"

definition ts_primary_state_ids_2 :: "(TSStateId \<times> TSStateId) list" where
  "ts_primary_state_ids_2 = [
     (150, 150), (151, 151), (152, 152), (153, 153), (154, 154), (155, 155), (156, 156),
     (157, 157), (158, 158), (159, 159), (160, 160), (161, 161), (162, 161), (163, 161),
     (164, 161), (165, 161), (166, 161), (167, 161), (168, 161), (169, 161), (170, 170),
     (171, 171), (172, 172), (173, 173), (174, 174), (175, 175), (176, 176), (177, 177),
     (178, 177), (179, 179), (180, 177), (181, 181), (182, 177), (183, 183), (184, 184),
     (185, 185), (186, 186), (187, 187), (188, 188), (189, 189), (190, 190), (191, 191),
     (192, 192), (193, 193), (194, 194), (195, 195), (196, 196), (197, 197), (198, 198),
     (199, 199), (200, 200), (201, 201), (202, 202), (203, 203), (204, 201), (205, 205),
     (206, 206), (207, 207), (208, 208), (209, 209), (210, 207), (211, 202), (212, 202),
     (213, 213), (214, 205), (215, 202), (216, 202), (217, 202), (218, 218), (219, 219),
     (220, 220), (221, 202), (222, 222), (223, 223), (224, 206), (225, 225), (226, 202),
     (227, 202), (228, 228), (229, 202), (230, 207), (231, 231), (232, 202), (233, 205),
     (234, 234), (235, 235), (236, 220), (237, 201), (238, 213), (239, 239), (240, 208),
     (241, 203), (242, 242), (243, 243), (244, 202), (245, 245), (246, 246), (247, 247),
     (248, 248), (249, 249), (250, 205), (251, 207), (252, 252), (253, 253), (254, 208),
     (255, 202), (256, 256), (257, 213), (258, 213), (259, 208), (260, 260), (261, 239),
     (262, 262), (263, 263), (264, 239), (265, 203), (266, 266), (267, 203), (268, 201),
     (269, 205), (270, 207), (271, 239), (272, 272), (273, 239), (274, 274), (275, 275),
     (276, 276), (277, 274), (278, 276), (279, 276), (280, 274), (281, 281), (282, 282),
     (283, 276), (284, 275), (285, 274), (286, 281), (287, 274), (288, 282), (289, 276),
     (290, 282), (291, 281), (292, 274), (293, 275), (294, 276), (295, 281), (296, 275),
     (297, 274), (298, 275), (299, 274)]"

definition ts_primary_state_ids_3 :: "(TSStateId \<times> TSStateId) list" where
  "ts_primary_state_ids_3 = [
     (300, 281), (301, 282), (302, 282), (303, 282), (304, 281), (305, 282), (306, 282),
     (307, 282), (308, 274), (309, 309), (310, 310), (311, 311), (312, 312), (313, 313),
     (314, 314), (315, 312), (316, 316), (317, 317), (318, 314), (319, 319), (320, 317),
     (321, 321), (322, 322), (323, 313), (324, 309), (325, 311), (326, 316), (327, 319),
     (328, 321), (329, 317), (330, 309), (331, 313), (332, 322), (333, 311), (334, 309),
     (335, 321), (336, 322), (337, 313), (338, 311), (339, 319), (340, 311), (341, 314),
     (342, 316), (343, 319), (344, 313), (345, 345), (346, 312), (347, 316), (348, 314),
     (349, 317), (350, 316), (351, 317), (352, 322), (353, 353), (354, 309), (355, 321),
     (356, 319), (357, 314), (358, 312), (359, 314), (360, 316), (361, 321), (362, 310),
     (363, 317), (364, 312), (365, 322), (366, 309), (367, 319), (368, 321), (369, 322),
     (370, 353), (371, 311), (372, 313), (373, 312), (374, 374), (375, 375), (376, 376),
     (377, 377), (378, 378), (379, 379), (380, 380), (381, 381), (382, 378), (383, 383),
     (384, 384), (385, 385), (386, 386), (387, 386), (388, 388), (389, 389), (390, 385),
     (391, 391), (392, 386), (393, 386), (394, 394), (395, 385), (396, 396), (397, 385),
     (398, 398), (399, 399), (400, 399), (401, 399), (402, 402), (403, 403), (404, 399),
     (405, 405), (406, 406), (407, 407), (408, 408), (409, 409), (410, 410), (411, 411),
     (412, 412), (413, 411), (414, 414), (415, 408), (416, 416), (417, 417), (418, 418),
     (419, 419), (420, 420), (421, 417), (422, 422), (423, 423), (424, 420), (425, 420),
     (426, 419), (427, 420), (428, 417), (429, 419), (430, 420), (431, 417), (432, 417),
     (433, 419), (434, 419), (435, 435), (436, 436), (437, 437), (438, 438), (439, 439),
     (440, 440), (441, 441), (442, 442), (443, 443), (444, 444), (445, 445), (446, 446),
     (447, 447), (448, 448), (449, 449)]"

definition ts_primary_state_ids_4 :: "(TSStateId \<times> TSStateId) list" where
  "ts_primary_state_ids_4 = [
     (450, 450), (451, 451), (452, 452), (453, 453), (454, 454), (455, 455), (456, 456),
     (457, 456), (458, 456), (459, 456), (460, 456), (461, 461), (462, 462), (463, 463),
     (464, 464), (465, 465), (466, 455), (467, 453), (468, 468), (469, 469), (470, 470),
     (471, 471), (472, 472), (473, 473), (474, 474), (475, 475), (476, 476), (477, 477),
     (478, 478), (479, 479), (480, 480), (481, 481), (482, 482), (483, 483), (484, 484),
     (485, 444), (486, 486), (487, 472), (488, 488), (489, 489), (490, 471), (491, 443),
     (492, 492), (493, 493), (494, 494), (495, 495), (496, 496), (497, 497), (498, 498),
     (499, 499), (500, 500), (501, 501), (502, 502), (503, 503), (504, 504), (505, 505),
     (506, 506), (507, 507), (508, 481), (509, 483), (510, 481), (511, 511), (512, 512),
     (513, 513), (514, 513), (515, 515), (516, 516), (517, 517), (518, 518), (519, 519),
     (520, 520), (521, 521), (522, 522), (523, 523), (524, 524), (525, 525), (526, 526),
     (527, 527), (528, 528), (529, 529), (530, 530), (531, 531), (532, 521), (533, 533),
     (534, 534), (535, 535), (536, 536), (537, 537), (538, 538), (539, 539), (540, 540),
     (541, 541), (542, 542), (543, 543), (544, 544), (545, 545), (546, 546), (547, 547),
     (548, 548), (549, 549), (550, 550), (551, 551), (552, 552), (553, 495), (554, 503),
     (555, 501), (556, 556), (557, 504), (558, 505), (559, 507), (560, 560), (561, 499),
     (562, 500), (563, 563), (564, 498), (565, 565), (566, 496), (567, 567), (568, 568),
     (569, 502), (570, 570), (571, 571), (572, 506), (573, 497), (574, 494), (575, 575),
     (576, 576), (577, 577), (578, 575), (579, 579), (580, 580), (581, 552), (582, 582),
     (583, 583), (584, 563), (585, 585), (586, 586), (587, 587), (588, 588), (589, 589),
     (590, 590), (591, 565), (592, 473), (593, 593), (594, 594), (595, 474), (596, 596),
     (597, 597), (598, 598), (599, 599)]"

definition ts_primary_state_ids_5 :: "(TSStateId \<times> TSStateId) list" where
  "ts_primary_state_ids_5 = [
     (600, 600), (601, 601), (602, 567), (603, 603), (604, 521), (605, 521), (606, 606),
     (607, 552), (608, 608), (609, 474), (610, 473), (611, 575), (612, 565), (613, 613),
     (614, 563), (615, 615), (616, 616), (617, 617), (618, 618), (619, 619), (620, 568),
     (621, 576), (622, 567), (623, 570), (624, 624), (625, 625), (626, 626), (627, 627),
     (628, 628), (629, 618), (630, 630), (631, 631), (632, 632), (633, 633), (634, 634),
     (635, 635), (636, 636), (637, 582), (638, 563), (639, 587), (640, 521), (641, 567),
     (642, 642), (643, 643), (644, 594), (645, 642), (646, 565), (647, 585), (648, 648),
     (649, 552), (650, 579), (651, 575), (652, 580), (653, 583), (654, 643), (655, 655),
     (656, 618), (657, 600), (658, 521), (659, 648), (660, 481), (661, 567), (662, 568),
     (663, 663), (664, 664), (665, 565), (666, 563), (667, 667), (668, 648), (669, 669),
     (670, 669), (671, 575), (672, 664), (673, 576), (674, 648), (675, 570), (676, 552),
     (677, 677), (678, 521), (679, 664), (680, 680), (681, 642), (682, 664), (683, 503),
     (684, 648), (685, 685), (686, 502), (687, 687), (688, 500), (689, 498), (690, 648),
     (691, 643), (692, 494), (693, 693), (694, 495), (695, 504), (696, 696), (697, 506),
     (698, 505), (699, 643), (700, 507), (701, 648), (702, 702), (703, 648), (704, 501),
     (705, 664), (706, 669), (707, 669), (708, 664), (709, 709), (710, 663), (711, 664),
     (712, 664), (713, 502), (714, 506), (715, 495), (716, 648), (717, 643), (718, 505),
     (719, 648), (720, 494), (721, 501), (722, 481), (723, 504), (724, 503), (725, 500),
     (726, 498), (727, 507), (728, 643), (729, 627), (730, 635), (731, 625), (732, 608),
     (733, 628), (734, 615), (735, 616), (736, 626), (737, 617), (738, 631), (739, 619),
     (740, 613), (741, 664), (742, 669), (743, 636), (744, 663), (745, 632), (746, 633),
     (747, 624), (748, 664), (749, 669)]"

definition ts_primary_state_ids_6 :: "(TSStateId \<times> TSStateId) list" where
  "ts_primary_state_ids_6 = [
     (750, 634), (751, 751), (752, 752), (753, 495), (754, 503), (755, 506), (756, 501),
     (757, 503), (758, 758), (759, 455), (760, 502), (761, 498), (762, 762), (763, 494),
     (764, 764), (765, 500), (766, 766), (767, 505), (768, 500), (769, 505), (770, 507),
     (771, 504), (772, 502), (773, 501), (774, 774), (775, 498), (776, 507), (777, 777),
     (778, 494), (779, 506), (780, 495), (781, 453), (782, 504), (783, 783), (784, 784),
     (785, 702), (786, 786), (787, 787), (788, 788), (789, 789), (790, 693), (791, 791),
     (792, 792), (793, 793), (794, 635), (795, 795), (796, 625), (797, 797), (798, 628),
     (799, 627), (800, 800), (801, 801), (802, 615), (803, 631), (804, 616), (805, 805),
     (806, 617), (807, 619), (808, 624), (809, 632), (810, 634), (811, 613), (812, 608),
     (813, 636), (814, 626), (815, 633), (816, 816), (817, 817), (818, 818), (819, 819),
     (820, 820), (821, 821), (822, 822), (823, 453), (824, 824), (825, 825), (826, 826),
     (827, 827), (828, 828), (829, 829), (830, 455), (831, 831), (832, 521), (833, 833),
     (834, 834), (835, 835), (836, 552), (837, 837), (838, 838), (839, 839), (840, 840),
     (841, 841), (842, 842), (843, 752), (844, 844), (845, 845), (846, 774), (847, 847),
     (848, 848), (849, 849), (850, 575), (851, 777), (852, 852), (853, 853), (854, 854),
     (855, 855), (856, 856), (857, 857), (858, 567), (859, 570), (860, 860), (861, 861),
     (862, 862), (863, 863), (864, 864), (865, 865), (866, 866), (867, 758), (868, 868),
     (869, 869), (870, 571), (871, 568), (872, 872), (873, 576), (874, 496), (875, 565),
     (876, 563), (877, 877), (878, 766), (879, 879), (880, 880), (881, 881), (882, 882),
     (883, 883), (884, 884), (885, 885), (886, 886), (887, 887), (888, 888), (889, 889),
     (890, 890), (891, 891), (892, 892), (893, 893), (894, 894), (895, 521), (896, 896),
     (897, 897), (898, 898), (899, 899)]"

definition ts_primary_state_ids_7 :: "(TSStateId \<times> TSStateId) list" where
  "ts_primary_state_ids_7 = [
     (900, 900), (901, 901), (902, 787), (903, 903), (904, 576), (905, 905), (906, 552),
     (907, 567), (908, 908), (909, 909), (910, 910), (911, 911), (912, 912), (913, 913),
     (914, 914), (915, 915), (916, 916), (917, 917), (918, 600), (919, 919), (920, 568),
     (921, 921), (922, 570), (923, 443), (924, 924), (925, 925), (926, 926), (927, 927),
     (928, 789), (929, 801), (930, 791), (931, 931), (932, 521), (933, 797), (934, 934),
     (935, 935), (936, 795), (937, 937), (938, 938), (939, 939), (940, 940), (941, 941),
     (942, 942), (943, 585), (944, 944), (945, 945), (946, 946), (947, 947), (948, 948),
     (949, 949), (950, 950), (951, 951), (952, 952), (953, 953), (954, 954), (955, 955),
     (956, 956), (957, 957), (958, 958), (959, 959), (960, 960), (961, 784), (962, 962),
     (963, 963), (964, 964), (965, 483), (966, 966), (967, 967), (968, 968), (969, 969),
     (970, 563), (971, 565), (972, 793), (973, 973), (974, 974), (975, 975), (976, 976),
     (977, 444), (978, 805), (979, 979), (980, 980), (981, 981), (982, 982), (983, 497),
     (984, 594), (985, 985), (986, 986), (987, 792), (988, 988), (989, 989), (990, 990),
     (991, 991), (992, 583), (993, 993), (994, 994), (995, 995), (996, 996), (997, 499),
     (998, 575), (999, 999), (1000, 1000), (1001, 1001), (1002, 1002), (1003, 1003), (1004, 521),
     (1005, 833), (1006, 821), (1007, 819), (1008, 835), (1009, 576), (1010, 834), (1011, 828),
     (1012, 819), (1013, 817), (1014, 827), (1015, 816), (1016, 824), (1017, 829), (1018, 568),
     (1019, 820), (1020, 570), (1021, 822), (1022, 818), (1023, 838), (1024, 853), (1025, 886),
     (1026, 897), (1027, 576), (1028, 568), (1029, 889), (1030, 570), (1031, 881), (1032, 898),
     (1033, 887), (1034, 552), (1035, 857), (1036, 567), (1037, 888), (1038, 842), (1039, 880),
     (1040, 892), (1041, 865), (1042, 891), (1043, 883), (1044, 521), (1045, 849), (1046, 852),
     (1047, 899), (1048, 879), (1049, 855)]"

definition ts_primary_state_ids_8 :: "(TSStateId \<times> TSStateId) list" where
  "ts_primary_state_ids_8 = [
     (1050, 1050), (1051, 848), (1052, 563), (1053, 882), (1054, 884), (1055, 872), (1056, 862),
     (1057, 565), (1058, 893), (1059, 1059), (1060, 521), (1061, 844), (1062, 885), (1063, 840),
     (1064, 1064), (1065, 863), (1066, 845), (1067, 847), (1068, 575), (1069, 471), (1070, 866),
     (1071, 868), (1072, 839), (1073, 894), (1074, 472), (1075, 877), (1076, 896), (1077, 1077),
     (1078, 869), (1079, 854), (1080, 861), (1081, 860), (1082, 856), (1083, 864), (1084, 841),
     (1085, 966), (1086, 521), (1087, 1003), (1088, 579), (1089, 979), (1090, 552), (1091, 935),
     (1092, 594), (1093, 991), (1094, 942), (1095, 944), (1096, 567), (1097, 1000), (1098, 993),
     (1099, 570), (1100, 568), (1101, 568), (1102, 582), (1103, 946), (1104, 964), (1105, 995),
     (1106, 950), (1107, 570), (1108, 594), (1109, 583), (1110, 575), (1111, 939), (1112, 563),
     (1113, 565), (1114, 994), (1115, 989), (1116, 576), (1117, 996), (1118, 956), (1119, 974),
     (1120, 1001), (1121, 787), (1122, 565), (1123, 980), (1124, 563), (1125, 915), (1126, 587),
     (1127, 909), (1128, 571), (1129, 938), (1130, 940), (1131, 951), (1132, 952), (1133, 914),
     (1134, 600), (1135, 962), (1136, 585), (1137, 959), (1138, 567), (1139, 941), (1140, 576),
     (1141, 580), (1142, 921), (1143, 957), (1144, 911), (1145, 552), (1146, 990), (1147, 793),
     (1148, 973), (1149, 903), (1150, 948), (1151, 443), (1152, 585), (1153, 968), (1154, 969),
     (1155, 575), (1156, 955), (1157, 954), (1158, 583), (1159, 905), (1160, 594), (1161, 945),
     (1162, 927), (1163, 999), (1164, 925), (1165, 900), (1166, 960), (1167, 953), (1168, 976),
     (1169, 988), (1170, 947), (1171, 975), (1172, 949), (1173, 934), (1174, 916), (1175, 917),
     (1176, 1002), (1177, 791), (1178, 600), (1179, 958), (1180, 967), (1181, 937), (1182, 963),
     (1183, 901), (1184, 913), (1185, 600), (1186, 908), (1187, 924), (1188, 986), (1189, 912),
     (1190, 926), (1191, 946), (1192, 981), (1193, 982), (1194, 985), (1195, 444), (1196, 565),
     (1197, 563), (1198, 472), (1199, 471)]"

definition ts_primary_state_ids_9 :: "(TSStateId \<times> TSStateId) list" where
  "ts_primary_state_ids_9 = [
     (1200, 883), (1201, 862), (1202, 869), (1203, 1203), (1204, 453), (1205, 568), (1206, 1206),
     (1207, 521), (1208, 576), (1209, 570), (1210, 567), (1211, 552), (1212, 849), (1213, 852),
     (1214, 860), (1215, 455), (1216, 575), (1217, 967), (1218, 444), (1219, 976), (1220, 1000),
     (1221, 948), (1222, 903), (1223, 973), (1224, 911), (1225, 921), (1226, 941), (1227, 575),
     (1228, 585), (1229, 565), (1230, 563), (1231, 567), (1232, 552), (1233, 1233), (1234, 881),
     (1235, 793), (1236, 951), (1237, 940), (1238, 1238), (1239, 938), (1240, 600), (1241, 1241),
     (1242, 865), (1243, 571), (1244, 443), (1245, 1245), (1246, 909), (1247, 915), (1248, 966),
     (1249, 1249), (1250, 974), (1251, 791), (1252, 594), (1253, 583), (1254, 1254), (1255, 995),
     (1256, 964), (1257, 855), (1258, 570), (1259, 568), (1260, 787), (1261, 979), (1262, 1003),
     (1263, 963), (1264, 901), (1265, 1265), (1266, 1266), (1267, 908), (1268, 924), (1269, 576),
     (1270, 937), (1271, 958), (1272, 1002), (1273, 917), (1274, 916), (1275, 900), (1276, 934),
     (1277, 947), (1278, 962), (1279, 989), (1280, 953), (1281, 1001), (1282, 988), (1283, 1283),
     (1284, 752), (1285, 967), (1286, 960), (1287, 955), (1288, 986), (1289, 925), (1290, 985),
     (1291, 927), (1292, 945), (1293, 777), (1294, 982), (1295, 981), (1296, 952), (1297, 1297),
     (1298, 954), (1299, 1299), (1300, 1300), (1301, 993), (1302, 991), (1303, 994), (1304, 378),
     (1305, 795), (1306, 758), (1307, 975), (1308, 1308), (1309, 1309), (1310, 766), (1311, 797),
     (1312, 774), (1313, 926), (1314, 1314), (1315, 969), (1316, 968), (1317, 942), (1318, 944),
     (1319, 801), (1320, 789), (1321, 793), (1322, 1322), (1323, 787), (1324, 1324), (1325, 805),
     (1326, 1326), (1327, 1327), (1328, 1324), (1329, 787), (1330, 784), (1331, 752),
     (1332, 791), (1333, 791), (1334, 792), (1335, 1322), (1336, 777), (1337, 1322),
     (1338, 1322), (1339, 1322), (1340, 1322), (1341, 828), (1342, 1322), (1343, 1322),
     (1344, 1322), (1345, 1322), (1346, 1322), (1347, 1322), (1348, 1324), (1349, 817)]"

definition ts_primary_state_ids_10 :: "(TSStateId \<times> TSStateId) list" where
  "ts_primary_state_ids_10 = [
     (1350, 946), (1351, 789), (1352, 801), (1353, 797), (1354, 795), (1355, 471), (1356, 879),
     (1357, 1357), (1358, 816), (1359, 1357), (1360, 863), (1361, 1361), (1362, 774),
     (1363, 766), (1364, 882), (1365, 472), (1366, 758), (1367, 844), (1368, 821), (1369, 827),
     (1370, 1370), (1371, 1206), (1372, 1372), (1373, 926), (1374, 594), (1375, 818),
     (1376, 600), (1377, 824), (1378, 942), (1379, 944), (1380, 975), (1381, 968), (1382, 969),
     (1383, 822), (1384, 820), (1385, 1357), (1386, 833), (1387, 1357), (1388, 1388),
     (1389, 991), (1390, 993), (1391, 994), (1392, 835), (1393, 834), (1394, 1357), (1395, 1395),
     (1396, 855), (1397, 1397), (1398, 884), (1399, 1399), (1400, 881), (1401, 1401),
     (1402, 1402), (1403, 845), (1404, 1399), (1405, 839), (1406, 847), (1407, 865), (1408, 840),
     (1409, 841), (1410, 899), (1411, 848), (1412, 1412), (1413, 887), (1414, 853), (1415, 1415),
     (1416, 1416), (1417, 886), (1418, 792), (1419, 854), (1420, 1420), (1421, 885), (1422, 777),
     (1423, 888), (1424, 891), (1425, 1425), (1426, 752), (1427, 892), (1428, 893), (1429, 856),
     (1430, 897), (1431, 784), (1432, 898), (1433, 861), (1434, 1434), (1435, 864), (1436, 889),
     (1437, 877), (1438, 828), (1439, 894), (1440, 896), (1441, 872), (1442, 842), (1443, 805),
     (1444, 1395), (1445, 857), (1446, 866), (1447, 838), (1448, 880), (1449, 868), (1450, 1450),
     (1451, 1451), (1452, 946), (1453, 956), (1454, 1308), (1455, 758), (1456, 834), (1457, 835),
     (1458, 882), (1459, 821), (1460, 766), (1461, 833), (1462, 774), (1463, 752), (1464, 820),
     (1465, 822), (1466, 824), (1467, 789), (1468, 801), (1469, 957), (1470, 473), (1471, 797),
     (1472, 795), (1473, 1314), (1474, 1474), (1475, 474), (1476, 816), (1477, 996), (1478, 483),
     (1479, 1309), (1480, 994), (1481, 993), (1482, 926), (1483, 991), (1484, 950), (1485, 949),
     (1486, 879), (1487, 969), (1488, 968), (1489, 863), (1490, 844), (1491, 817), (1492, 818),
     (1493, 935), (1494, 827), (1495, 944), (1496, 942), (1497, 905), (1498, 777), (1499, 975)]"

definition ts_primary_state_ids_11 :: "(TSStateId \<times> TSStateId) list" where
  "ts_primary_state_ids_11 = [
     (1500, 959), (1501, 913), (1502, 912), (1503, 866), (1504, 882), (1505, 848), (1506, 853),
     (1507, 847), (1508, 864), (1509, 1509), (1510, 891), (1511, 805), (1512, 856), (1513, 839),
     (1514, 840), (1515, 879), (1516, 841), (1517, 792), (1518, 888), (1519, 889), (1520, 899),
     (1521, 845), (1522, 1522), (1523, 854), (1524, 880), (1525, 887), (1526, 886), (1527, 885),
     (1528, 894), (1529, 884), (1530, 805), (1531, 896), (1532, 892), (1533, 857), (1534, 877),
     (1535, 792), (1536, 828), (1537, 1509), (1538, 1538), (1539, 872), (1540, 893), (1541, 897),
     (1542, 1542), (1543, 898), (1544, 861), (1545, 842), (1546, 784), (1547, 881), (1548, 855),
     (1549, 838), (1550, 865), (1551, 868), (1552, 1542), (1553, 784), (1554, 835), (1555, 1555),
     (1556, 863), (1557, 795), (1558, 1558), (1559, 789), (1560, 957), (1561, 820), (1562, 822),
     (1563, 956), (1564, 1564), (1565, 774), (1566, 844), (1567, 1567), (1568, 822),
     (1569, 1569), (1570, 834), (1571, 1361), (1572, 1572), (1573, 905), (1574, 835),
     (1575, 824), (1576, 1576), (1577, 1577), (1578, 949), (1579, 1579), (1580, 824),
     (1581, 1581), (1582, 833), (1583, 959), (1584, 1584), (1585, 1370), (1586, 766),
     (1587, 797), (1588, 844), (1589, 818), (1590, 816), (1591, 935), (1592, 834), (1593, 499),
     (1594, 912), (1595, 913), (1596, 950), (1597, 497), (1598, 1598), (1599, 821), (1600, 817),
     (1601, 882), (1602, 879), (1603, 827), (1604, 1604), (1605, 758), (1606, 833), (1607, 801),
     (1608, 820), (1609, 996), (1610, 445), (1611, 1372), (1612, 842), (1613, 1613), (1614, 828),
     (1615, 868), (1616, 818), (1617, 841), (1618, 892), (1619, 866), (1620, 893), (1621, 896),
     (1622, 865), (1623, 877), (1624, 864), (1625, 863), (1626, 840), (1627, 857), (1628, 872),
     (1629, 861), (1630, 899), (1631, 888), (1632, 889), (1633, 856), (1634, 881), (1635, 894),
     (1636, 865), (1637, 854), (1638, 853), (1639, 821), (1640, 855), (1641, 891), (1642, 855),
     (1643, 848), (1644, 847), (1645, 842), (1646, 881), (1647, 897), (1648, 880), (1649, 898)]"

definition ts_primary_state_ids_12 :: "(TSStateId \<times> TSStateId) list" where
  "ts_primary_state_ids_12 = [
     (1650, 891), (1651, 845), (1652, 838), (1653, 885), (1654, 886), (1655, 887), (1656, 885),
     (1657, 886), (1658, 887), (1659, 899), (1660, 839), (1661, 884), (1662, 884), (1663, 839),
     (1664, 817), (1665, 840), (1666, 841), (1667, 827), (1668, 1668), (1669, 956), (1670, 861),
     (1671, 1671), (1672, 889), (1673, 1673), (1674, 1674), (1675, 950), (1676, 893),
     (1677, 912), (1678, 898), (1679, 996), (1680, 894), (1681, 896), (1682, 949), (1683, 853),
     (1684, 897), (1685, 854), (1686, 1686), (1687, 877), (1688, 1688), (1689, 1686),
     (1690, 1688), (1691, 1688), (1692, 838), (1693, 1686), (1694, 864), (1695, 1673),
     (1696, 935), (1697, 856), (1698, 1686), (1699, 1686), (1700, 848), (1701, 1673),
     (1702, 866), (1703, 847), (1704, 868), (1705, 1688), (1706, 845), (1707, 1688), (1708, 913),
     (1709, 957), (1710, 905), (1711, 959), (1712, 1686), (1713, 1713), (1714, 1673),
     (1715, 1688), (1716, 1673), (1717, 1673), (1718, 872), (1719, 473), (1720, 474),
     (1721, 892), (1722, 1722), (1723, 1723), (1724, 1724), (1725, 1725), (1726, 1726),
     (1727, 1727), (1728, 1728), (1729, 1729), (1730, 1730), (1731, 1731), (1732, 1732),
     (1733, 1733), (1734, 1734), (1735, 1735), (1736, 1736), (1737, 1737), (1738, 1738),
     (1739, 1739), (1740, 1740), (1741, 1741), (1742, 1742), (1743, 1743), (1744, 1744),
     (1745, 1745), (1746, 1746), (1747, 1747), (1748, 1748), (1749, 1749), (1750, 1750),
     (1751, 1751), (1752, 1752), (1753, 1753), (1754, 1754), (1755, 1755), (1756, 1756),
     (1757, 1757), (1758, 1758), (1759, 1759), (1760, 1760), (1761, 1761), (1762, 1762),
     (1763, 1763), (1764, 1764), (1765, 1765), (1766, 1766), (1767, 1767), (1768, 1768),
     (1769, 1769), (1770, 1770), (1771, 1771), (1772, 1772), (1773, 1773), (1774, 1774),
     (1775, 1775), (1776, 1776), (1777, 1777), (1778, 1778), (1779, 1779), (1780, 1780),
     (1781, 1781), (1782, 1782), (1783, 1783), (1784, 1784), (1785, 1785), (1786, 1786),
     (1787, 1787), (1788, 1788), (1789, 1789), (1790, 1790), (1791, 1791), (1792, 1792),
     (1793, 1793), (1794, 1794), (1795, 1795), (1796, 1796), (1797, 1797), (1798, 1798),
     (1799, 1799)]"

definition ts_primary_state_ids_13 :: "(TSStateId \<times> TSStateId) list" where
  "ts_primary_state_ids_13 = [
     (1800, 1800), (1801, 1801), (1802, 1802), (1803, 1803), (1804, 1804), (1805, 1805),
     (1806, 1806), (1807, 1807), (1808, 1808), (1809, 1809), (1810, 1810), (1811, 624),
     (1812, 634), (1813, 1813), (1814, 1814), (1815, 1815), (1816, 1816), (1817, 1817),
     (1818, 1818), (1819, 1813), (1820, 1820), (1821, 1821), (1822, 633), (1823, 1820),
     (1824, 1821), (1825, 613), (1826, 635), (1827, 636), (1828, 632), (1829, 631), (1830, 1820),
     (1831, 628), (1832, 625), (1833, 1815), (1834, 1834), (1835, 1813), (1836, 1815),
     (1837, 1821), (1838, 1838), (1839, 1815), (1840, 1840), (1841, 1841), (1842, 1838),
     (1843, 1834), (1844, 1816), (1845, 1841), (1846, 1821), (1847, 1841), (1848, 1848),
     (1849, 1820), (1850, 615), (1851, 1821), (1852, 1820), (1853, 616), (1854, 627),
     (1855, 1816), (1856, 1815), (1857, 1834), (1858, 1813), (1859, 1838), (1860, 617),
     (1861, 1813), (1862, 1821), (1863, 1815), (1864, 1838), (1865, 1816), (1866, 1866),
     (1867, 1834), (1868, 619), (1869, 1869), (1870, 1841), (1871, 1841), (1872, 1816),
     (1873, 1838), (1874, 1834), (1875, 1834), (1876, 1813), (1877, 1838), (1878, 1841),
     (1879, 608), (1880, 1880), (1881, 1820), (1882, 1816), (1883, 626), (1884, 1884),
     (1885, 1885), (1886, 1886), (1887, 1887), (1888, 1884), (1889, 1889), (1890, 1889),
     (1891, 1889), (1892, 1886), (1893, 1893), (1894, 1894), (1895, 1889), (1896, 1896),
     (1897, 1886), (1898, 1898), (1899, 1884), (1900, 1889), (1901, 1901), (1902, 1886),
     (1903, 1886), (1904, 1904), (1905, 1905), (1906, 1884), (1907, 1884), (1908, 1726),
     (1909, 1909), (1910, 1884), (1911, 1911), (1912, 1889), (1913, 1886), (1914, 1914),
     (1915, 1915), (1916, 1916), (1917, 1916), (1918, 1918), (1919, 1919), (1920, 1918),
     (1921, 1921), (1922, 1922), (1923, 1923), (1924, 1916), (1925, 1918), (1926, 1918),
     (1927, 1916), (1928, 1928), (1929, 1918), (1930, 1930), (1931, 1931), (1932, 1932),
     (1933, 1933), (1934, 1934), (1935, 1935), (1936, 1931), (1937, 1937), (1938, 1931),
     (1939, 1931), (1940, 1932), (1941, 1937), (1942, 1937), (1943, 1931), (1944, 1937),
     (1945, 663), (1946, 1946), (1947, 1947), (1948, 1931), (1949, 1931)]"

definition ts_primary_state_ids_14 :: "(TSStateId \<times> TSStateId) list" where
  "ts_primary_state_ids_14 = [
     (1950, 1950), (1951, 1931), (1952, 1932), (1953, 1953), (1954, 1954), (1955, 1932),
     (1956, 1932), (1957, 1957), (1958, 1937), (1959, 1959), (1960, 1931), (1961, 1961),
     (1962, 914), (1963, 939), (1964, 905), (1965, 980), (1966, 990), (1967, 935), (1968, 950),
     (1969, 1969), (1970, 999), (1971, 1971), (1972, 1972), (1973, 626), (1974, 608),
     (1975, 634), (1976, 1976), (1977, 632), (1978, 631), (1979, 628), (1980, 625), (1981, 1981),
     (1982, 613), (1983, 1983), (1984, 1984), (1985, 816), (1986, 1986), (1987, 1987),
     (1988, 1988), (1989, 1989), (1990, 975), (1991, 615), (1992, 1992), (1993, 1993),
     (1994, 627), (1995, 1995), (1996, 616), (1997, 635), (1998, 617), (1999, 619), (2000, 1904),
     (2001, 633), (2002, 624), (2003, 636), (2004, 2004), (2005, 2005), (2006, 2006),
     (2007, 2007), (2008, 2008), (2009, 2009), (2010, 2010), (2011, 2011), (2012, 2012),
     (2013, 2013), (2014, 2014), (2015, 2015), (2016, 2016), (2017, 2017), (2018, 2018),
     (2019, 2010), (2020, 2020), (2021, 2021), (2022, 2022), (2023, 2023), (2024, 2024),
     (2025, 2025), (2026, 2026), (2027, 2027), (2028, 2028), (2029, 2029), (2030, 2010),
     (2031, 2031), (2032, 2032), (2033, 2033), (2034, 2034), (2035, 2010), (2036, 2036),
     (2037, 2037), (2038, 2038), (2039, 2032), (2040, 2040), (2041, 2041), (2042, 2010),
     (2043, 2043), (2044, 2010), (2045, 2045), (2046, 2046), (2047, 2047), (2048, 2010),
     (2049, 2049), (2050, 2050), (2051, 2051), (2052, 2052), (2053, 2010), (2054, 2054),
     (2055, 2055), (2056, 2056), (2057, 2057), (2058, 2058), (2059, 2059), (2060, 2060),
     (2061, 2061), (2062, 2062), (2063, 2060), (2064, 2064), (2065, 2065), (2066, 2058),
     (2067, 888), (2068, 2068), (2069, 2069), (2070, 2070), (2071, 2071), (2072, 2072),
     (2073, 2073), (2074, 2074), (2075, 2075), (2076, 2076), (2077, 2064), (2078, 2078),
     (2079, 2074), (2080, 2080), (2081, 2081), (2082, 2082), (2083, 2083), (2084, 2084),
     (2085, 2085), (2086, 2064), (2087, 2058), (2088, 2088), (2089, 2058), (2090, 2064),
     (2091, 2074), (2092, 2092), (2093, 2093), (2094, 2094), (2095, 819), (2096, 2064),
     (2097, 2058), (2098, 2074), (2099, 857)]"

definition ts_primary_state_ids_15 :: "(TSStateId \<times> TSStateId) list" where
  "ts_primary_state_ids_15 = [
     (2100, 2100), (2101, 829), (2102, 2102), (2103, 2103), (2104, 1000), (2105, 2105),
     (2106, 901), (2107, 2107), (2108, 2108), (2109, 600), (2110, 2110), (2111, 2111),
     (2112, 2112), (2113, 2113), (2114, 963), (2115, 2115), (2116, 2116), (2117, 2117),
     (2118, 2118), (2119, 2119), (2120, 900), (2121, 594), (2122, 953), (2123, 2123),
     (2124, 2124), (2125, 986), (2126, 2126), (2127, 2127), (2128, 985), (2129, 2129),
     (2130, 2130), (2131, 2131), (2132, 2132), (2133, 982), (2134, 981), (2135, 819),
     (2136, 2136), (2137, 2137), (2138, 2138), (2139, 2139), (2140, 829), (2141, 777),
     (2142, 829), (2143, 2143), (2144, 752), (2145, 880), (2146, 2146), (2147, 2147),
     (2148, 2148), (2149, 2149), (2150, 2150), (2151, 2151), (2152, 2152), (2153, 2153),
     (2154, 2153), (2155, 2155), (2156, 2156), (2157, 2157), (2158, 2158), (2159, 2159),
     (2160, 2153), (2161, 758), (2162, 2157), (2163, 2163), (2164, 2164), (2165, 2165),
     (2166, 2153), (2167, 828), (2168, 2168), (2169, 953), (2170, 2157), (2171, 2171),
     (2172, 2165), (2173, 2150), (2174, 766), (2175, 774), (2176, 2176), (2177, 2165),
     (2178, 2153), (2179, 2165), (2180, 2165), (2181, 2157), (2182, 2150), (2183, 2157),
     (2184, 2150), (2185, 2150), (2186, 2186), (2187, 2187), (2188, 2188), (2189, 2189),
     (2190, 2190), (2191, 2191), (2192, 2192), (2193, 2193), (2194, 2194), (2195, 2195),
     (2196, 2196), (2197, 2197), (2198, 2198), (2199, 2199), (2200, 2200), (2201, 2201),
     (2202, 2202), (2203, 2203), (2204, 959), (2205, 2205), (2206, 2206), (2207, 2207),
     (2208, 2208), (2209, 2209), (2210, 2192), (2211, 2211), (2212, 2191), (2213, 2213),
     (2214, 2211), (2215, 2213), (2216, 789), (2217, 2217), (2218, 2191), (2219, 801),
     (2220, 2192), (2221, 2188), (2222, 2209), (2223, 2208), (2224, 2224), (2225, 2225),
     (2226, 2198), (2227, 2196), (2228, 2228), (2229, 2209), (2230, 2230), (2231, 2231),
     (2232, 2192), (2233, 2191), (2234, 2234), (2235, 2235), (2236, 2209), (2237, 2237),
     (2238, 2208), (2239, 2196), (2240, 2198), (2241, 2208), (2242, 2209), (2243, 2213),
     (2244, 2211), (2245, 2192), (2246, 2191), (2247, 2247), (2248, 2211), (2249, 2213)]"

definition ts_primary_state_ids_16 :: "(TSStateId \<times> TSStateId) list" where
  "ts_primary_state_ids_16 = [
     (2250, 2211), (2251, 2198), (2252, 2194), (2253, 2196), (2254, 2213), (2255, 2198),
     (2256, 2196), (2257, 2257), (2258, 2258), (2259, 797), (2260, 2260), (2261, 2208),
     (2262, 795), (2263, 2263), (2264, 2264), (2265, 2265), (2266, 2266), (2267, 2267),
     (2268, 2268), (2269, 2267), (2270, 2270), (2271, 2271), (2272, 2267), (2273, 869),
     (2274, 2274), (2275, 2275), (2276, 2276), (2277, 2267), (2278, 2278), (2279, 2279),
     (2280, 2280), (2281, 2281), (2282, 2282), (2283, 2267), (2284, 2284), (2285, 2285),
     (2286, 2286), (2287, 2287), (2288, 2288), (2289, 2289), (2290, 2263), (2291, 2291),
     (2292, 2292), (2293, 2293), (2294, 2294), (2295, 2295), (2296, 2296), (2297, 2267),
     (2298, 2263), (2299, 2299), (2300, 2295), (2301, 2301), (2302, 2302), (2303, 2303),
     (2304, 2301), (2305, 2305), (2306, 2294), (2307, 2307), (2308, 2308), (2309, 2309),
     (2310, 2310), (2311, 2311), (2312, 2312), (2313, 2263), (2314, 2295), (2315, 862),
     (2316, 2263), (2317, 2295), (2318, 2294), (2319, 2301), (2320, 2320), (2321, 2321),
     (2322, 2294), (2323, 2323), (2324, 2294), (2325, 2325), (2326, 2295), (2327, 2327),
     (2328, 2301), (2329, 2329), (2330, 2301), (2331, 2331), (2332, 921), (2333, 2333),
     (2334, 2334), (2335, 952), (2336, 2336), (2337, 2337), (2338, 964), (2339, 2339),
     (2340, 915), (2341, 909), (2342, 2339), (2343, 2343), (2344, 2344), (2345, 916),
     (2346, 917), (2347, 2347), (2348, 981), (2349, 2349), (2350, 982), (2351, 985),
     (2352, 2352), (2353, 1002), (2354, 2354), (2355, 958), (2356, 963), (2357, 2357),
     (2358, 2339), (2359, 986), (2360, 2360), (2361, 2361), (2362, 2362), (2363, 1001),
     (2364, 989), (2365, 951), (2366, 937), (2367, 979), (2368, 2368), (2369, 962), (2370, 2370),
     (2371, 900), (2372, 2372), (2373, 2373), (2374, 585), (2375, 2375), (2376, 940),
     (2377, 2343), (2378, 2378), (2379, 947), (2380, 988), (2381, 865), (2382, 941), (2383, 976),
     (2384, 974), (2385, 995), (2386, 855), (2387, 901), (2388, 924), (2389, 960), (2390, 934),
     (2391, 925), (2392, 2392), (2393, 908), (2394, 881), (2395, 2378), (2396, 575), (2397, 911),
     (2398, 2398), (2399, 1003)]"

definition ts_primary_state_ids_17 :: "(TSStateId \<times> TSStateId) list" where
  "ts_primary_state_ids_17 = [
     (2400, 2372), (2401, 583), (2402, 2402), (2403, 2403), (2404, 973), (2405, 903),
     (2406, 2406), (2407, 2407), (2408, 2362), (2409, 552), (2410, 2410), (2411, 2344),
     (2412, 948), (2413, 927), (2414, 567), (2415, 945), (2416, 1000), (2417, 2417),
     (2418, 2418), (2419, 2419), (2420, 2420), (2421, 2421), (2422, 2422), (2423, 563),
     (2424, 1796), (2425, 2425), (2426, 2339), (2427, 966), (2428, 954), (2429, 2429),
     (2430, 2430), (2431, 2431), (2432, 938), (2433, 2433), (2434, 2434), (2435, 955),
     (2436, 2436), (2437, 2437), (2438, 565), (2439, 2439), (2440, 2440), (2441, 2441),
     (2442, 2442), (2443, 2443), (2444, 2444), (2445, 2445), (2446, 2446), (2447, 2447),
     (2448, 2448), (2449, 2449), (2450, 2450), (2451, 2451), (2452, 2452), (2453, 2453),
     (2454, 2454), (2455, 2455), (2456, 2456), (2457, 2457), (2458, 2458), (2459, 2459),
     (2460, 2460), (2461, 2461), (2462, 2462), (2463, 2463), (2464, 2464), (2465, 2465),
     (2466, 2466), (2467, 2453), (2468, 2468), (2469, 2461), (2470, 2470), (2471, 2442),
     (2472, 2472), (2473, 2473), (2474, 2473), (2475, 2475), (2476, 2476), (2477, 2477),
     (2478, 2478), (2479, 2450), (2480, 2480), (2481, 2481), (2482, 2482), (2483, 2483),
     (2484, 2484), (2485, 2485), (2486, 2450), (2487, 2441), (2488, 2488), (2489, 2489),
     (2490, 2490), (2491, 2491), (2492, 2492), (2493, 2493), (2494, 2462), (2495, 2495),
     (2496, 2137), (2497, 2362), (2498, 2362), (2499, 2499), (2500, 2463), (2501, 2450),
     (2502, 2138), (2503, 2503), (2504, 2504), (2505, 2505), (2506, 2506), (2507, 2507),
     (2508, 2508), (2509, 2509), (2510, 2510), (2511, 2450), (2512, 2512), (2513, 2513),
     (2514, 2514), (2515, 2515), (2516, 2516), (2517, 2362), (2518, 2499), (2519, 2362),
     (2520, 2520), (2521, 2521), (2522, 2522), (2523, 2523), (2524, 2524), (2525, 2525),
     (2526, 2526), (2527, 2527), (2528, 2528), (2529, 2529), (2530, 2530), (2531, 2362),
     (2532, 2532), (2533, 2499), (2534, 2534), (2535, 2535), (2536, 2536), (2537, 2537),
     (2538, 2441), (2539, 2539), (2540, 2540), (2541, 2541), (2542, 2542), (2543, 2543),
     (2544, 2544), (2545, 2545), (2546, 2546), (2547, 2547), (2548, 2548), (2549, 2549)]"

definition ts_primary_state_ids_18 :: "(TSStateId \<times> TSStateId) list" where
  "ts_primary_state_ids_18 = [
     (2550, 2550), (2551, 2551), (2552, 2552), (2553, 2553), (2554, 2554), (2555, 2555),
     (2556, 2556), (2557, 2557), (2558, 2453), (2559, 2559), (2560, 2560), (2561, 2561),
     (2562, 2562), (2563, 2563), (2564, 2564), (2565, 2565), (2566, 2566), (2567, 2567),
     (2568, 2568), (2569, 2499), (2570, 2362), (2571, 2571), (2572, 2572), (2573, 2441),
     (2574, 2574), (2575, 2575), (2576, 2576), (2577, 2577), (2578, 2578), (2579, 2579),
     (2580, 2580), (2581, 2581), (2582, 2582), (2583, 2583), (2584, 2584), (2585, 2453),
     (2586, 2586), (2587, 2587), (2588, 2588), (2589, 2589), (2590, 2590), (2591, 2591),
     (2592, 2592), (2593, 2593), (2594, 2594), (2595, 2595), (2596, 2596), (2597, 2597),
     (2598, 2598), (2599, 2599), (2600, 2600), (2601, 2601), (2602, 2602), (2603, 2603),
     (2604, 2604), (2605, 2605), (2606, 2606), (2607, 2595), (2608, 2596), (2609, 2594),
     (2610, 2610), (2611, 2592), (2612, 2612), (2613, 2595), (2614, 2596), (2615, 2615),
     (2616, 2616), (2617, 2617), (2618, 2618), (2619, 2619), (2620, 2620), (2621, 2621),
     (2622, 2622), (2623, 2592), (2624, 2624), (2625, 2625), (2626, 2594), (2627, 2627),
     (2628, 2628), (2629, 2629), (2630, 2630), (2631, 2631), (2632, 2632), (2633, 2596),
     (2634, 2634), (2635, 2594), (2636, 2636), (2637, 2637), (2638, 2596), (2639, 2639),
     (2640, 2640), (2641, 2641), (2642, 2594), (2643, 2643), (2644, 2644), (2645, 2645),
     (2646, 2644), (2647, 2647), (2648, 2594), (2649, 2596), (2650, 2592), (2651, 2651),
     (2652, 2652), (2653, 2653), (2654, 2654), (2655, 2655), (2656, 2594), (2657, 2592),
     (2658, 2658), (2659, 2659), (2660, 2660), (2661, 2661), (2662, 2662), (2663, 2661),
     (2664, 2596), (2665, 2665), (2666, 2666), (2667, 2667), (2668, 2594), (2669, 2595),
     (2670, 2670), (2671, 2289), (2672, 2672), (2673, 2673), (2674, 2674), (2675, 2311),
     (2676, 2329), (2677, 2677), (2678, 2678), (2679, 2679), (2680, 2276), (2681, 2681),
     (2682, 2682), (2683, 2683), (2684, 2684), (2685, 2685), (2686, 2686), (2687, 2687),
     (2688, 2688), (2689, 2683), (2690, 2690), (2691, 2691), (2692, 2685), (2693, 2693),
     (2694, 2694), (2695, 2695), (2696, 2696), (2697, 2683), (2698, 2698), (2699, 2699)]"

definition ts_primary_state_ids_19 :: "(TSStateId \<times> TSStateId) list" where
  "ts_primary_state_ids_19 = [
     (2700, 2700), (2701, 2701), (2702, 2685), (2703, 2703), (2704, 2704), (2705, 2705),
     (2706, 2706), (2707, 2707), (2708, 2670), (2709, 2683), (2710, 2710), (2711, 2711),
     (2712, 2712), (2713, 2713), (2714, 2714), (2715, 2695), (2716, 2716), (2717, 2717),
     (2718, 2718), (2719, 2719), (2720, 2720), (2721, 2683), (2722, 2722), (2723, 2685),
     (2724, 2724), (2725, 2725), (2726, 2303), (2727, 2727), (2728, 2695), (2729, 2700),
     (2730, 2701), (2731, 2731), (2732, 2685), (2733, 2733), (2734, 2734), (2735, 2718),
     (2736, 2736), (2737, 2737), (2738, 2705), (2739, 2739), (2740, 2740), (2741, 2741),
     (2742, 2742), (2743, 2743), (2744, 2744), (2745, 2745), (2746, 2746), (2747, 2747),
     (2748, 2748), (2749, 2749), (2750, 2750), (2751, 2706), (2752, 2752), (2753, 2753),
     (2754, 2754), (2755, 2755), (2756, 2756), (2757, 2757), (2758, 2758), (2759, 2701),
     (2760, 2760), (2761, 2761), (2762, 2672), (2763, 2763), (2764, 2764), (2765, 2765),
     (2766, 2766), (2767, 2767), (2768, 2678), (2769, 2769), (2770, 2770), (2771, 2771),
     (2772, 2772), (2773, 2773), (2774, 2674), (2775, 2775), (2776, 2776), (2777, 2777),
     (2778, 2705), (2779, 2779), (2780, 2780), (2781, 2781), (2782, 2782), (2783, 2783),
     (2784, 2784), (2785, 2766), (2786, 2786), (2787, 2757), (2788, 2788), (2789, 2789),
     (2790, 2784), (2791, 2791), (2792, 2681), (2793, 2793), (2794, 2670), (2795, 2782),
     (2796, 2796), (2797, 2797), (2798, 2798), (2799, 2799), (2800, 2718), (2801, 2801),
     (2802, 2802), (2803, 2803), (2804, 2672), (2805, 2805), (2806, 2806), (2807, 2720),
     (2808, 2808), (2809, 2809), (2810, 2706), (2811, 2780), (2812, 2695), (2813, 2683),
     (2814, 2814), (2815, 2724), (2816, 2725), (2817, 2817), (2818, 2769), (2819, 2819),
     (2820, 2820), (2821, 2739), (2822, 2822), (2823, 2705), (2824, 2824), (2825, 2672),
     (2826, 2699), (2827, 2670), (2828, 2786), (2829, 2678), (2830, 2817), (2831, 2700),
     (2832, 2701), (2833, 2685), (2834, 2834), (2835, 2835), (2836, 2836), (2837, 2837),
     (2838, 2838), (2839, 2775), (2840, 2302), (2841, 2305), (2842, 2685), (2843, 2701),
     (2844, 2718), (2845, 2325), (2846, 2809), (2847, 2847), (2848, 2848), (2849, 2705)]"

definition ts_primary_state_ids_20 :: "(TSStateId \<times> TSStateId) list" where
  "ts_primary_state_ids_20 = [
     (2850, 2724), (2851, 2700), (2852, 2817), (2853, 2786), (2854, 2854), (2855, 2855),
     (2856, 2725), (2857, 2857), (2858, 2858), (2859, 2699), (2860, 2860), (2861, 2861),
     (2862, 2806), (2863, 2863), (2864, 2814), (2865, 2739), (2866, 2866), (2867, 2867),
     (2868, 2868), (2869, 2869), (2870, 2706), (2871, 2805), (2872, 2672), (2873, 2873),
     (2874, 2874), (2875, 2678), (2876, 2814), (2877, 2877), (2878, 2670), (2879, 2879),
     (2880, 2880), (2881, 2769), (2882, 2674), (2883, 2678), (2884, 2331), (2885, 2683),
     (2886, 2886), (2887, 2695), (2888, 2775), (2889, 2889), (2890, 2890), (2891, 2809),
     (2892, 2780), (2893, 2806), (2894, 2805), (2895, 2895), (2896, 2782), (2897, 2784),
     (2898, 2898), (2899, 2766), (2900, 2706), (2901, 2803), (2902, 2802), (2903, 2757),
     (2904, 2681), (2905, 2718), (2906, 2906), (2907, 2724), (2908, 2908), (2909, 2802),
     (2910, 2910), (2911, 2803), (2912, 2725), (2913, 2805), (2914, 2906), (2915, 2806),
     (2916, 2916), (2917, 2809), (2918, 2918), (2919, 2695), (2920, 2920), (2921, 2285),
     (2922, 2922), (2923, 2683), (2924, 2739), (2925, 2681), (2926, 2769), (2927, 2757),
     (2928, 2766), (2929, 2784), (2930, 2782), (2931, 2931), (2932, 2932), (2933, 2672),
     (2934, 2934), (2935, 2935), (2936, 2731), (2937, 2678), (2938, 2718), (2939, 2264),
     (2940, 2265), (2941, 2920), (2942, 2780), (2943, 2943), (2944, 2906), (2945, 2775),
     (2946, 2674), (2947, 2947), (2948, 2724), (2949, 2699), (2950, 2291), (2951, 2951),
     (2952, 2952), (2953, 2803), (2954, 2802), (2955, 2786), (2956, 2817), (2957, 2957),
     (2958, 2700), (2959, 2701), (2960, 2685), (2961, 2725), (2962, 2962), (2963, 2963),
     (2964, 2964), (2965, 2965), (2966, 2705), (2967, 2739), (2968, 2744), (2969, 2724),
     (2970, 2970), (2971, 2971), (2972, 2972), (2973, 2973), (2974, 2725), (2975, 2975),
     (2976, 2976), (2977, 2706), (2978, 2978), (2979, 2979), (2980, 2980), (2981, 2906),
     (2982, 2982), (2983, 2983), (2984, 2984), (2985, 2670), (2986, 2986), (2987, 2987),
     (2988, 2814), (2989, 2989), (2990, 2990), (2991, 2991), (2992, 2992), (2993, 2700),
     (2994, 2947), (2995, 2995), (2996, 2996), (2997, 2997), (2998, 2998), (2999, 2999)]"

definition ts_primary_state_ids_21 :: "(TSStateId \<times> TSStateId) list" where
  "ts_primary_state_ids_21 = [
     (3000, 2739), (3001, 3001), (3002, 3002), (3003, 3003), (3004, 3004), (3005, 3005),
     (3006, 3006), (3007, 3007), (3008, 3008), (3009, 3009), (3010, 3010), (3011, 3010),
     (3012, 3010), (3013, 3013), (3014, 3014), (3015, 3015), (3016, 3016), (3017, 3017),
     (3018, 3018), (3019, 3019), (3020, 3020), (3021, 3021), (3022, 3022), (3023, 3023),
     (3024, 3024), (3025, 3025), (3026, 3026), (3027, 3027), (3028, 3028), (3029, 3029),
     (3030, 3030), (3031, 3031), (3032, 3032), (3033, 3033), (3034, 3034), (3035, 3035),
     (3036, 3036), (3037, 3037), (3038, 3038), (3039, 3039), (3040, 3040), (3041, 3041),
     (3042, 3042), (3043, 3043), (3044, 3044), (3045, 3007), (3046, 3046), (3047, 3047),
     (3048, 3048), (3049, 3049), (3050, 3050), (3051, 3051), (3052, 3052), (3053, 3053),
     (3054, 3054), (3055, 3055), (3056, 3056), (3057, 3057), (3058, 3058), (3059, 3059),
     (3060, 3060), (3061, 3017), (3062, 3062), (3063, 3063), (3064, 3064), (3065, 3065),
     (3066, 3066), (3067, 3067), (3068, 3068), (3069, 3069), (3070, 3070), (3071, 3071),
     (3072, 3072), (3073, 3073), (3074, 3074), (3075, 3075), (3076, 3076), (3077, 3077),
     (3078, 3078), (3079, 3079), (3080, 3060), (3081, 3081), (3082, 3019), (3083, 3052),
     (3084, 3084), (3085, 3085), (3086, 3086), (3087, 3087), (3088, 3088), (3089, 3089),
     (3090, 3090), (3091, 3091), (3092, 3092), (3093, 3093), (3094, 3094), (3095, 3095),
     (3096, 3096), (3097, 3079), (3098, 3098), (3099, 3099), (3100, 3081), (3101, 3101),
     (3102, 3009), (3103, 3103), (3104, 3104), (3105, 3085), (3106, 3050), (3107, 3107),
     (3108, 3085), (3109, 3109), (3110, 3009), (3111, 3064), (3112, 3112), (3113, 3017),
     (3114, 3114), (3115, 3081), (3116, 531), (3117, 3117), (3118, 3050), (3119, 3119),
     (3120, 3098), (3121, 547), (3122, 3070), (3123, 3123), (3124, 3098), (3125, 3125),
     (3126, 3052), (3127, 3060), (3128, 3128), (3129, 3129), (3130, 3130), (3131, 3131),
     (3132, 3132), (3133, 3133), (3134, 3134), (3135, 3079), (3136, 3136), (3137, 3137),
     (3138, 3138), (3139, 3139), (3140, 3077), (3141, 3079), (3142, 3084), (3143, 3019),
     (3144, 3119), (3145, 3145), (3146, 3081), (3147, 3147), (3148, 3148), (3149, 3010)]"

definition ts_primary_state_ids_22 :: "(TSStateId \<times> TSStateId) list" where
  "ts_primary_state_ids_22 = [
     (3150, 3085), (3151, 3151), (3152, 3152), (3153, 3153), (3154, 3154), (3155, 3155),
     (3156, 3156), (3157, 3157), (3158, 3077), (3159, 3159), (3160, 3160), (3161, 3109),
     (3162, 3070), (3163, 3163), (3164, 3164), (3165, 3165), (3166, 3166), (3167, 3167),
     (3168, 3168), (3169, 3064), (3170, 3019), (3171, 3171), (3172, 3172), (3173, 3173),
     (3174, 3077), (3175, 3077), (3176, 3176), (3177, 3177), (3178, 3178), (3179, 3077),
     (3180, 3180), (3181, 3077), (3182, 3182), (3183, 3077), (3184, 3184), (3185, 3185),
     (3186, 3186), (3187, 3187), (3188, 3064), (3189, 3068), (3190, 3190), (3191, 3191),
     (3192, 3192), (3193, 3193), (3194, 3070), (3195, 3195), (3196, 3077), (3197, 3197),
     (3198, 3198), (3199, 3199), (3200, 3109), (3201, 3077), (3202, 3084), (3203, 3203),
     (3204, 3204), (3205, 3084), (3206, 3077), (3207, 3132), (3208, 3208), (3209, 3145),
     (3210, 3164), (3211, 3137), (3212, 3212), (3213, 3213), (3214, 3167), (3215, 3077),
     (3216, 3216), (3217, 3217), (3218, 3098), (3219, 3219), (3220, 3220), (3221, 3221),
     (3222, 3222), (3223, 3223), (3224, 3224), (3225, 3225), (3226, 3050), (3227, 3227),
     (3228, 3228), (3229, 3229), (3230, 3230), (3231, 3017), (3232, 3232), (3233, 3233),
     (3234, 3234), (3235, 3235), (3236, 3066), (3237, 3237), (3238, 3050), (3239, 3239),
     (3240, 3240), (3241, 3241), (3242, 3242), (3243, 3243), (3244, 3060), (3245, 3245),
     (3246, 3077), (3247, 3247), (3248, 3248), (3249, 3070), (3250, 3250), (3251, 3251),
     (3252, 3252), (3253, 3253), (3254, 3254), (3255, 3255), (3256, 3256), (3257, 3257),
     (3258, 3258), (3259, 3259), (3260, 3260), (3261, 3261), (3262, 3262), (3263, 3263),
     (3264, 3264), (3265, 3265), (3266, 3266), (3267, 3267), (3268, 3268), (3269, 3269),
     (3270, 3270), (3271, 3271), (3272, 3272), (3273, 3273), (3274, 3274), (3275, 3275),
     (3276, 3276), (3277, 3277), (3278, 3278), (3279, 3273), (3280, 3280), (3281, 3281),
     (3282, 3282), (3283, 3283), (3284, 3284), (3285, 3285), (3286, 3286), (3287, 3287),
     (3288, 3288), (3289, 3289), (3290, 3290), (3291, 3291), (3292, 3292), (3293, 3293),
     (3294, 3294), (3295, 3295), (3296, 3296), (3297, 3297), (3298, 3298), (3299, 3299)]"

definition ts_primary_state_ids_23 :: "(TSStateId \<times> TSStateId) list" where
  "ts_primary_state_ids_23 = [
     (3300, 3300), (3301, 3301), (3302, 3302), (3303, 3303), (3304, 3273), (3305, 3305),
     (3306, 3306), (3307, 3307), (3308, 3308), (3309, 3291), (3310, 3310), (3311, 3311),
     (3312, 3312), (3313, 3313), (3314, 3314), (3315, 3315), (3316, 3316), (3317, 3317),
     (3318, 3318), (3319, 3319), (3320, 3307), (3321, 3306), (3322, 3297), (3323, 3289),
     (3324, 3324), (3325, 3318), (3326, 3275), (3327, 3327), (3328, 3316), (3329, 3315),
     (3330, 3313), (3331, 3331), (3332, 3332), (3333, 3333), (3334, 3334), (3335, 3284),
     (3336, 3292), (3337, 3293), (3338, 3275), (3339, 3295), (3340, 3340), (3341, 3341),
     (3342, 3342), (3343, 3273), (3344, 3305), (3345, 3345), (3346, 3346), (3347, 3347),
     (3348, 3291), (3349, 3313), (3350, 3297), (3351, 3315), (3352, 3316), (3353, 3353),
     (3354, 3318), (3355, 3307), (3356, 3306), (3357, 3297), (3358, 3289), (3359, 3359),
     (3360, 3360), (3361, 3361), (3362, 3281), (3363, 3295), (3364, 3291), (3365, 3365),
     (3366, 3273), (3367, 3305), (3368, 3368), (3369, 3369), (3370, 3315), (3371, 3371),
     (3372, 3372), (3373, 3373), (3374, 3305), (3375, 3295), (3376, 3273), (3377, 3289),
     (3378, 3273), (3379, 3305), (3380, 3380), (3381, 3315), (3382, 3382), (3383, 3284),
     (3384, 3295), (3385, 3295), (3386, 3273), (3387, 3305), (3388, 3315), (3389, 3389),
     (3390, 3293), (3391, 3273), (3392, 3305), (3393, 3315), (3394, 3292), (3395, 3287),
     (3396, 3273), (3397, 3305), (3398, 3315), (3399, 3399), (3400, 3292), (3401, 3273),
     (3402, 3305), (3403, 3315), (3404, 3293), (3405, 3273), (3406, 3305), (3407, 3315),
     (3408, 3408), (3409, 3287), (3410, 3287), (3411, 3411), (3412, 3412), (3413, 3413),
     (3414, 3295), (3415, 3415), (3416, 3284), (3417, 3417), (3418, 3418), (3419, 3419),
     (3420, 3420), (3421, 3421), (3422, 3422), (3423, 3423), (3424, 3424), (3425, 3275),
     (3426, 3305), (3427, 3422), (3428, 3428), (3429, 3429), (3430, 3430), (3431, 3305),
     (3432, 3432), (3433, 3433), (3434, 3341), (3435, 3435), (3436, 3436), (3437, 3289),
     (3438, 3306), (3439, 3439), (3440, 3297), (3441, 3291), (3442, 3281), (3443, 3443),
     (3444, 3361), (3445, 3445), (3446, 3446), (3447, 3341), (3448, 3448), (3449, 3315)]"

definition ts_primary_state_ids_24 :: "(TSStateId \<times> TSStateId) list" where
  "ts_primary_state_ids_24 = [
     (3450, 3450), (3451, 3451), (3452, 3307), (3453, 3453), (3454, 3340), (3455, 3334),
     (3456, 3451), (3457, 3448), (3458, 3319), (3459, 3459), (3460, 3318), (3461, 3461),
     (3462, 3462), (3463, 3463), (3464, 3464), (3465, 3316), (3466, 3315), (3467, 3467),
     (3468, 3313), (3469, 3469), (3470, 3292), (3471, 3313), (3472, 3472), (3473, 3340),
     (3474, 3474), (3475, 3334), (3476, 3340), (3477, 3315), (3478, 3448), (3479, 3479),
     (3480, 3341), (3481, 3481), (3482, 3482), (3483, 3483), (3484, 3316), (3485, 3485),
     (3486, 3486), (3487, 3278), (3488, 3488), (3489, 3318), (3490, 3490), (3491, 3491),
     (3492, 3281), (3493, 3493), (3494, 3291), (3495, 3495), (3496, 3496), (3497, 3347),
     (3498, 3498), (3499, 3275), (3500, 3305), (3501, 3273), (3502, 3502), (3503, 3503),
     (3504, 3504), (3505, 3505), (3506, 3307), (3507, 3306), (3508, 3508), (3509, 3509),
     (3510, 3510), (3511, 3511), (3512, 3297), (3513, 3491), (3514, 3514), (3515, 3515),
     (3516, 3293), (3517, 3289), (3518, 3295), (3519, 3519), (3520, 3520), (3521, 3293),
     (3522, 3292), (3523, 3523), (3524, 3382), (3525, 3525), (3526, 3295), (3527, 3527),
     (3528, 3528), (3529, 3529), (3530, 3530), (3531, 3531), (3532, 3532), (3533, 3287),
     (3534, 3534), (3535, 3535), (3536, 3536), (3537, 3537), (3538, 3538), (3539, 3539),
     (3540, 3540), (3541, 3541), (3542, 3542), (3543, 3543), (3544, 3313), (3545, 3545),
     (3546, 3546), (3547, 3547), (3548, 3548), (3549, 3284), (3550, 3550), (3551, 3551),
     (3552, 3334), (3553, 3553), (3554, 3368), (3555, 3555), (3556, 3556), (3557, 3275),
     (3558, 3558), (3559, 3559), (3560, 3560), (3561, 3368), (3562, 3318), (3563, 3316),
     (3564, 3564), (3565, 3368), (3566, 3566), (3567, 3567), (3568, 3306), (3569, 3307),
     (3570, 3570), (3571, 3571), (3572, 3572), (3573, 3573), (3574, 3574), (3575, 3575),
     (3576, 3576)]"

definition ts_primary_state_ids_table :: "(TSStateId \<times> TSStateId) list" where
  "ts_primary_state_ids_table =
     ts_primary_state_ids_1 @ ts_primary_state_ids_2 @ ts_primary_state_ids_3 @ ts_primary_state_ids_4 @
     ts_primary_state_ids_5 @ ts_primary_state_ids_6 @ ts_primary_state_ids_7 @ ts_primary_state_ids_8 @
     ts_primary_state_ids_9 @ ts_primary_state_ids_10 @ ts_primary_state_ids_11 @ ts_primary_state_ids_12 @
     ts_primary_state_ids_13 @ ts_primary_state_ids_14 @ ts_primary_state_ids_15 @ ts_primary_state_ids_16 @
     ts_primary_state_ids_17 @ ts_primary_state_ids_18 @ ts_primary_state_ids_19 @ ts_primary_state_ids_20 @
     ts_primary_state_ids_21 @ ts_primary_state_ids_22 @ ts_primary_state_ids_23 @ ts_primary_state_ids_24"

definition ts_primary_state_ids :: "TSStateId \<rightharpoonup> TSStateId" where
  "ts_primary_state_ids = map_of ts_primary_state_ids_table"

lemma primary_keys:
  "map fst ts_primary_state_ids_1 = [0..<150]"
  "map fst ts_primary_state_ids_2 = [150..<300]"
  "map fst ts_primary_state_ids_3 = [300..<450]"
  "map fst ts_primary_state_ids_4 = [450..<600]"
  "map fst ts_primary_state_ids_5 = [600..<750]"
  "map fst ts_primary_state_ids_6 = [750..<900]"
  "map fst ts_primary_state_ids_7 = [900..<1050]"
  "map fst ts_primary_state_ids_8 = [1050..<1200]"
  "map fst ts_primary_state_ids_9 = [1200..<1350]"
  "map fst ts_primary_state_ids_10 = [1350..<1500]"
  "map fst ts_primary_state_ids_11 = [1500..<1650]"
  "map fst ts_primary_state_ids_12 = [1650..<1800]"
  "map fst ts_primary_state_ids_13 = [1800..<1950]"
  "map fst ts_primary_state_ids_14 = [1950..<2100]"
  "map fst ts_primary_state_ids_15 = [2100..<2250]"
  "map fst ts_primary_state_ids_16 = [2250..<2400]"
  "map fst ts_primary_state_ids_17 = [2400..<2550]"
  "map fst ts_primary_state_ids_18 = [2550..<2700]"
  "map fst ts_primary_state_ids_19 = [2700..<2850]"
  "map fst ts_primary_state_ids_20 = [2850..<3000]"
  "map fst ts_primary_state_ids_21 = [3000..<3150]"
  "map fst ts_primary_state_ids_22 = [3150..<3300]"
  "map fst ts_primary_state_ids_23 = [3300..<3450]"
  "map fst ts_primary_state_ids_24 = [3450..<3577]"
  by (simp add: ts_primary_state_ids_1_def upt_from_0)
    (simp_all add: ts_primary_state_ids_2_def ts_primary_state_ids_3_def ts_primary_state_ids_4_def ts_primary_state_ids_5_def
    ts_primary_state_ids_6_def ts_primary_state_ids_7_def ts_primary_state_ids_8_def ts_primary_state_ids_9_def
    ts_primary_state_ids_10_def ts_primary_state_ids_11_def ts_primary_state_ids_12_def ts_primary_state_ids_13_def
    ts_primary_state_ids_14_def ts_primary_state_ids_15_def ts_primary_state_ids_16_def ts_primary_state_ids_17_def
    ts_primary_state_ids_18_def ts_primary_state_ids_19_def ts_primary_state_ids_20_def ts_primary_state_ids_21_def
    ts_primary_state_ids_22_def ts_primary_state_ids_23_def ts_primary_state_ids_24_def)

lemma primary_keys_all: "map fst ts_primary_state_ids_table = [0..<STATE_COUNT]"
  by (simp add: ts_primary_state_ids_table_def primary_keys upt_join del: upt_rec_numeral)

lemma primary_eqs_blocks:
  "list_all (\<lambda>(k, x). ts_primary_state_ids k = Some x) ts_primary_state_ids_1"
  "list_all (\<lambda>(k, x). ts_primary_state_ids k = Some x) ts_primary_state_ids_2"
  "list_all (\<lambda>(k, x). ts_primary_state_ids k = Some x) ts_primary_state_ids_3"
  "list_all (\<lambda>(k, x). ts_primary_state_ids k = Some x) ts_primary_state_ids_4"
  "list_all (\<lambda>(k, x). ts_primary_state_ids k = Some x) ts_primary_state_ids_5"
  "list_all (\<lambda>(k, x). ts_primary_state_ids k = Some x) ts_primary_state_ids_6"
  "list_all (\<lambda>(k, x). ts_primary_state_ids k = Some x) ts_primary_state_ids_7"
  "list_all (\<lambda>(k, x). ts_primary_state_ids k = Some x) ts_primary_state_ids_8"
  "list_all (\<lambda>(k, x). ts_primary_state_ids k = Some x) ts_primary_state_ids_9"
  "list_all (\<lambda>(k, x). ts_primary_state_ids k = Some x) ts_primary_state_ids_10"
  "list_all (\<lambda>(k, x). ts_primary_state_ids k = Some x) ts_primary_state_ids_11"
  "list_all (\<lambda>(k, x). ts_primary_state_ids k = Some x) ts_primary_state_ids_12"
  "list_all (\<lambda>(k, x). ts_primary_state_ids k = Some x) ts_primary_state_ids_13"
  "list_all (\<lambda>(k, x). ts_primary_state_ids k = Some x) ts_primary_state_ids_14"
  "list_all (\<lambda>(k, x). ts_primary_state_ids k = Some x) ts_primary_state_ids_15"
  "list_all (\<lambda>(k, x). ts_primary_state_ids k = Some x) ts_primary_state_ids_16"
  "list_all (\<lambda>(k, x). ts_primary_state_ids k = Some x) ts_primary_state_ids_17"
  "list_all (\<lambda>(k, x). ts_primary_state_ids k = Some x) ts_primary_state_ids_18"
  "list_all (\<lambda>(k, x). ts_primary_state_ids k = Some x) ts_primary_state_ids_19"
  "list_all (\<lambda>(k, x). ts_primary_state_ids k = Some x) ts_primary_state_ids_20"
  "list_all (\<lambda>(k, x). ts_primary_state_ids k = Some x) ts_primary_state_ids_21"
  "list_all (\<lambda>(k, x). ts_primary_state_ids k = Some x) ts_primary_state_ids_22"
  "list_all (\<lambda>(k, x). ts_primary_state_ids k = Some x) ts_primary_state_ids_23"
  "list_all (\<lambda>(k, x). ts_primary_state_ids k = Some x) ts_primary_state_ids_24"
  using map_of_all [of ts_primary_state_ids_table, unfolded primary_keys_all, OF distinct_upt, folded ts_primary_state_ids_def]
  by (simp_all add: ts_primary_state_ids_table_def list_all_append)

lemmas primary_eqs [simp] =
  primary_eqs_blocks(1) [unfolded ts_primary_state_ids_1_def list_all_tens prod.case One_nat_def]
  primary_eqs_blocks(2) [unfolded ts_primary_state_ids_2_def list_all_tens prod.case One_nat_def]
  primary_eqs_blocks(3) [unfolded ts_primary_state_ids_3_def list_all_tens prod.case One_nat_def]
  primary_eqs_blocks(4) [unfolded ts_primary_state_ids_4_def list_all_tens prod.case One_nat_def]
  primary_eqs_blocks(5) [unfolded ts_primary_state_ids_5_def list_all_tens prod.case One_nat_def]
  primary_eqs_blocks(6) [unfolded ts_primary_state_ids_6_def list_all_tens prod.case One_nat_def]
  primary_eqs_blocks(7) [unfolded ts_primary_state_ids_7_def list_all_tens prod.case One_nat_def]
  primary_eqs_blocks(8) [unfolded ts_primary_state_ids_8_def list_all_tens prod.case One_nat_def]
  primary_eqs_blocks(9) [unfolded ts_primary_state_ids_9_def list_all_tens prod.case One_nat_def]
  primary_eqs_blocks(10) [unfolded ts_primary_state_ids_10_def list_all_tens prod.case One_nat_def]
  primary_eqs_blocks(11) [unfolded ts_primary_state_ids_11_def list_all_tens prod.case One_nat_def]
  primary_eqs_blocks(12) [unfolded ts_primary_state_ids_12_def list_all_tens prod.case One_nat_def]
  primary_eqs_blocks(13) [unfolded ts_primary_state_ids_13_def list_all_tens prod.case One_nat_def]
  primary_eqs_blocks(14) [unfolded ts_primary_state_ids_14_def list_all_tens prod.case One_nat_def]
  primary_eqs_blocks(15) [unfolded ts_primary_state_ids_15_def list_all_tens prod.case One_nat_def]
  primary_eqs_blocks(16) [unfolded ts_primary_state_ids_16_def list_all_tens prod.case One_nat_def]
  primary_eqs_blocks(17) [unfolded ts_primary_state_ids_17_def list_all_tens prod.case One_nat_def]
  primary_eqs_blocks(18) [unfolded ts_primary_state_ids_18_def list_all_tens prod.case One_nat_def]
  primary_eqs_blocks(19) [unfolded ts_primary_state_ids_19_def list_all_tens prod.case One_nat_def]
  primary_eqs_blocks(20) [unfolded ts_primary_state_ids_20_def list_all_tens prod.case One_nat_def]
  primary_eqs_blocks(21) [unfolded ts_primary_state_ids_21_def list_all_tens prod.case One_nat_def]
  primary_eqs_blocks(22) [unfolded ts_primary_state_ids_22_def list_all_tens prod.case One_nat_def]
  primary_eqs_blocks(23) [unfolded ts_primary_state_ids_23_def list_all_tens prod.case One_nat_def]
  primary_eqs_blocks(24) [unfolded ts_primary_state_ids_24_def list_all_tens prod.case One_nat_def]

subsection \<open>Primary states\<close>

definition primary_ok :: "TSStateId \<Rightarrow> TSStateId \<Rightarrow> bool" where
  "primary_ok s t \<longleftrightarrow> t \<le> s \<and> ts_primary_state_ids t = Some t"

lemma primary_ok_1: "list_all (\<lambda>(s, t). primary_ok s t) ts_primary_state_ids_1"
  by (simp add: primary_ok_def ts_primary_state_ids_1_def)

lemma primary_ok_2: "list_all (\<lambda>(s, t). primary_ok s t) ts_primary_state_ids_2"
  by (simp add: primary_ok_def ts_primary_state_ids_2_def)

lemma primary_ok_3: "list_all (\<lambda>(s, t). primary_ok s t) ts_primary_state_ids_3"
  by (simp add: primary_ok_def ts_primary_state_ids_3_def)

lemma primary_ok_4: "list_all (\<lambda>(s, t). primary_ok s t) ts_primary_state_ids_4"
  by (simp add: primary_ok_def ts_primary_state_ids_4_def)

lemma primary_ok_5: "list_all (\<lambda>(s, t). primary_ok s t) ts_primary_state_ids_5"
  by (simp add: primary_ok_def ts_primary_state_ids_5_def)

lemma primary_ok_6: "list_all (\<lambda>(s, t). primary_ok s t) ts_primary_state_ids_6"
  by (simp add: primary_ok_def ts_primary_state_ids_6_def)

lemma primary_ok_7: "list_all (\<lambda>(s, t). primary_ok s t) ts_primary_state_ids_7"
  by (simp add: primary_ok_def ts_primary_state_ids_7_def)

lemma primary_ok_8: "list_all (\<lambda>(s, t). primary_ok s t) ts_primary_state_ids_8"
  by (simp add: primary_ok_def ts_primary_state_ids_8_def)

lemma primary_ok_9: "list_all (\<lambda>(s, t). primary_ok s t) ts_primary_state_ids_9"
  by (simp add: primary_ok_def ts_primary_state_ids_9_def)

lemma primary_ok_10: "list_all (\<lambda>(s, t). primary_ok s t) ts_primary_state_ids_10"
  by (simp add: primary_ok_def ts_primary_state_ids_10_def)

lemma primary_ok_11: "list_all (\<lambda>(s, t). primary_ok s t) ts_primary_state_ids_11"
  by (simp add: primary_ok_def ts_primary_state_ids_11_def)

lemma primary_ok_12: "list_all (\<lambda>(s, t). primary_ok s t) ts_primary_state_ids_12"
  by (simp add: primary_ok_def ts_primary_state_ids_12_def)

lemma primary_ok_13: "list_all (\<lambda>(s, t). primary_ok s t) ts_primary_state_ids_13"
  by (simp add: primary_ok_def ts_primary_state_ids_13_def)

lemma primary_ok_14: "list_all (\<lambda>(s, t). primary_ok s t) ts_primary_state_ids_14"
  by (simp add: primary_ok_def ts_primary_state_ids_14_def)

lemma primary_ok_15: "list_all (\<lambda>(s, t). primary_ok s t) ts_primary_state_ids_15"
  by (simp add: primary_ok_def ts_primary_state_ids_15_def)

lemma primary_ok_16: "list_all (\<lambda>(s, t). primary_ok s t) ts_primary_state_ids_16"
  by (simp add: primary_ok_def ts_primary_state_ids_16_def)

lemma primary_ok_17: "list_all (\<lambda>(s, t). primary_ok s t) ts_primary_state_ids_17"
  by (simp add: primary_ok_def ts_primary_state_ids_17_def)

lemma primary_ok_18: "list_all (\<lambda>(s, t). primary_ok s t) ts_primary_state_ids_18"
  by (simp add: primary_ok_def ts_primary_state_ids_18_def)

lemma primary_ok_19: "list_all (\<lambda>(s, t). primary_ok s t) ts_primary_state_ids_19"
  by (simp add: primary_ok_def ts_primary_state_ids_19_def)

lemma primary_ok_20: "list_all (\<lambda>(s, t). primary_ok s t) ts_primary_state_ids_20"
  by (simp add: primary_ok_def ts_primary_state_ids_20_def)

lemma primary_ok_21: "list_all (\<lambda>(s, t). primary_ok s t) ts_primary_state_ids_21"
  by (simp add: primary_ok_def ts_primary_state_ids_21_def)

lemma primary_ok_22: "list_all (\<lambda>(s, t). primary_ok s t) ts_primary_state_ids_22"
  by (simp add: primary_ok_def ts_primary_state_ids_22_def)

lemma primary_ok_23: "list_all (\<lambda>(s, t). primary_ok s t) ts_primary_state_ids_23"
  by (simp add: primary_ok_def ts_primary_state_ids_23_def)

lemma primary_ok_24: "list_all (\<lambda>(s, t). primary_ok s t) ts_primary_state_ids_24"
  by (simp add: primary_ok_def ts_primary_state_ids_24_def)

lemma primary_ok_all: "list_all (\<lambda>(s, t). primary_ok s t) ts_primary_state_ids_table"
  by (simp add: ts_primary_state_ids_table_def
    primary_ok_1 primary_ok_2 primary_ok_3 primary_ok_4 primary_ok_5 primary_ok_6
    primary_ok_7 primary_ok_8 primary_ok_9 primary_ok_10 primary_ok_11 primary_ok_12
    primary_ok_13 primary_ok_14 primary_ok_15 primary_ok_16 primary_ok_17 primary_ok_18
    primary_ok_19 primary_ok_20 primary_ok_21 primary_ok_22 primary_ok_23 primary_ok_24)

text \<open>
  C24. Every parse state has a primary state. It is not a later state, and it is its own primary
  state, so that two states have the same primary state exactly when the table relates both to it:
  the states are partitioned into classes, each named by its first member.
\<close>

theorem primary_states_idempotent:
  assumes "s < STATE_COUNT"
  shows "\<exists>t. ts_primary_state_ids s = Some t \<and> t \<le> s \<and> ts_primary_state_ids t = Some t"
proof -
  from assms obtain t where t: "ts_primary_state_ids s = Some t"
    using map_of_upt_keys [OF primary_keys_all, of s] by (auto simp: ts_primary_state_ids_def)
  with map_of_list_all [OF primary_ok_all, of s t] show ?thesis
    by (simp add: primary_ok_def flip: ts_primary_state_ids_def)
qed

theorem primary_states_idempotent_witness:
  "\<exists>t. ts_primary_state_ids 3576 = Some t \<and> t \<le> 3576 \<and> ts_primary_state_ids t = Some t"
  by (rule primary_states_idempotent) simp

end
