(* ===== verification/Dart_Counts.thy ===== *)
theory Dart_Counts
  imports Dart_Actions
begin

text \<open>
  Which symbols, production ids and fields the tables of the grammar use: every non-terminal and every
  production id is reduced by some action, every field is given to some child. The counts of the
  descriptor are compared with these.
\<close>

subsection \<open>Reductions\<close>

text \<open>
  The reductions among the actions, as non-terminal, number of children and production id; for every
  part of the table the reductions that show which of them occur.
\<close>

fun reduction_of :: "TSParseAction \<Rightarrow> (TSSymbol \<times> nat \<times> nat) list" where
  "reduction_of (REDUCE y n precedence p) = [(y, n, p)]"
| "reduction_of _ = []"

definition reductions :: "action_group list \<Rightarrow> (TSSymbol \<times> nat \<times> nat) list" where
  "reductions gs = concat (map (\<lambda>(i, count, reusable, actions). concat (map reduction_of actions)) gs)"

lemma reduction_of_iff: "(y, n, p) \<in> set (reduction_of a) \<longleftrightarrow> (\<exists>d. a = REDUCE y n d p)"
  by (cases a) auto

lemma action_in_groups: "ACTION a \<in> set ts_parse_actions \<longleftrightarrow>
  (\<exists>i count reusable actions. (i, count, reusable, actions) \<in> set ts_parse_action_groups \<and> a \<in> set actions)"
  by (force simp: ts_parse_actions_def)

lemma reductions_actions:
  "(y, n, p) \<in> set (reductions ts_parse_action_groups) \<longleftrightarrow> (\<exists>d. ACTION (REDUCE y n d p) \<in> set ts_parse_actions)"
  by (fastforce simp: reductions_def action_in_groups reduction_of_iff)

lemma reductions_append: "reductions (gs @ hs) = reductions gs @ reductions hs"
  by (simp add: reductions_def)

definition reductions_1 :: "(TSSymbol \<times> nat \<times> nat) list" where
  "reductions_1 = [
     (sym_program, 0, 0), (sym_switch_statement_case, 5, 0), (aux_sym_block_repeat1, 2, 0)]"

definition reductions_2 :: "(TSSymbol \<times> nat \<times> nat) list" where
  "reductions_2 = [
     (sym_switch_statement_default, 3, 0), (sym_rest_pattern, 1, 0), (sym__argument_list, 3, 0),
     (sym__map_pattern_entry, 1, 0)]"

definition reductions_3 :: "(TSSymbol \<times> nat \<times> nat) list" where
  "reductions_3 = [
     (sym__for_loop_parts, 1, 0), (sym__for_loop_parts, 2, 52), (sym__for_loop_parts, 5, 89),
     (sym__for_loop_parts, 2, 54), (sym__for_loop_parts, 3, 69), (sym__for_loop_parts, 4, 74),
     (sym__for_loop_parts, 4, 77), (sym__for_loop_parts, 3, 67), (sym_label, 2, 0)]"

definition reductions_4 :: "(TSSymbol \<times> nat \<times> nat) list" where
  "reductions_4 = [
     (sym_block, 2, 0), (sym_set_or_map_literal, 2, 0), (sym_map_pattern, 2, 0),
     (sym__semicolon, 1, 0), (sym_function_body, 1, 0), (sym_cascade_section, 3, 0),
     (sym_try_statement, 2, 8), (aux_sym_try_statement_repeat1, 2, 0),
     (aux_sym_string_literal_repeat1, 2, 0), (sym_string_literal, 1, 0),
     (aux_sym_program_repeat4, 2, 0), (sym__expression, 1, 0),
     (aux_sym_cascade_section_repeat2, 2, 0), (sym__on_part, 3, 0)]"

definition reductions_5 :: "(TSSymbol \<times> nat \<times> nat) list" where
  "reductions_5 = [
     (sym__try_head, 2, 19), (sym__type_name, 1, 1), (sym__primary, 1, 0),
     (sym_assignable_expression, 1, 0), (aux_sym_additive_expression_repeat1, 2, 0),
     (aux_sym_shift_expression_repeat1, 2, 0), (aux_sym_cascade_section_repeat1, 2, 0),
     (sym__cascade_subsection, 2, 0), (aux_sym__if_null_expression, 2, 36),
     (aux_sym_bitwise_xor_expression_repeat1, 2, 0), (sym_equality_expression, 3, 0),
     (aux_sym_bitwise_and_expression_repeat1, 2, 0), (sym__expression_without_cascade, 1, 0),
     (aux_sym_logical_or_expression_repeat1, 2, 0),
     (aux_sym_bitwise_or_expression_repeat1, 2, 0), (sym_relational_expression, 3, 0),
     (aux_sym_logical_and_expression_repeat1, 2, 0), (sym_local_variable_declaration, 2, 0),
     (sym_constant_pattern, 1, 0), (sym__simple_formal_parameter, 1, 0),
     (sym_return_statement, 3, 0), (sym_expression_statement, 2, 0), (sym_if_statement, 9, 96),
     (sym_continue_statement, 3, 0), (sym_while_statement, 3, 34), (sym_switch_statement, 3, 34),
     (sym_switch_block, 3, 0), (sym_break_statement, 2, 0), (sym__statement, 1, 0),
     (sym_finally_clause, 2, 0), (sym_yield_statement, 3, 0), (sym_if_statement, 7, 86),
     (sym_local_function_declaration, 1, 0), (sym_assert_statement, 2, 0),
     (sym_for_statement, 4, 51), (sym_lambda_expression, 2, 21), (sym_for_statement, 3, 35),
     (sym_if_statement, 7, 85), (sym_if_statement, 5, 62), (sym_yield_each_statement, 4, 0),
     (sym_do_statement, 5, 61), (sym_unconditional_assignable_selector, 1, 0)]"

definition reductions_6 :: "(TSSymbol \<times> nat \<times> nat) list" where
  "reductions_6 = [
     (sym_conditional_assignable_selector, 2, 0), (sym__assignable_selector, 1, 0),
     (sym_selector, 1, 0), (sym__assignable_selector_part, 1, 0),
     (sym_parenthesized_expression, 3, 0), (sym_index_selector, 3, 0),
     (sym_cascade_selector, 2, 0), (sym_argument_part, 1, 0),
     (aux_sym_extension_body_repeat1, 2, 0), (sym_arguments, 2, 0),
     (aux_sym_enum_body_repeat2, 2, 0), (sym_for_loop_parts, 3, 53),
     (sym__string_literal_double_quotes_multiple, 2, 0),
     (sym__raw_string_literal_single_quotes_multiple, 3, 0),
     (sym__raw_string_literal_double_quotes_multiple, 2, 0),
     (sym__raw_string_literal_single_quotes, 2, 0), (sym_super_formal_parameter, 3, 0),
     (sym__raw_string_literal_double_quotes, 2, 0),
     (sym__string_literal_single_quotes_multiple, 2, 0),
     (sym__string_literal_double_quotes, 3, 0), (sym__string_literal_single_quotes, 2, 0),
     (sym_postfix_expression, 1, 0)]"

definition reductions_7 :: "(TSSymbol \<times> nat \<times> nat) list" where
  "reductions_7 = [
     (sym__postfix_expression, 1, 0), (aux_sym__assignable_selector_part_repeat1, 2, 0),
     (sym_relational_operator, 1, 0), (sym_field_initializer, 5, 0)]"

definition reductions_8 :: "(TSSymbol \<times> nat \<times> nat) list" where
  "reductions_8 = [
     (sym__type_not_void_not_function, 1, 0), (sym__function_type_tail, 1, 0),
     (sym_function_type, 1, 0), (sym__relational_pattern, 2, 0),
     (aux_sym__function_type_tails, 2, 0), (sym__real_expression, 1, 0),
     (sym_multiplicative_expression, 2, 0), (sym_shift_expression, 2, 0),
     (aux_sym_multiplicative_expression_repeat1, 2, 0), (sym__type_not_void, 1, 0),
     (sym__type_not_function, 1, 0), (aux_sym__expression_repeat1, 2, 0),
     (sym_additive_expression, 2, 0), (sym_logical_or_expression, 2, 0),
     (sym_logical_and_expression, 2, 0), (sym_record_type, 2, 0),
     (sym_bitwise_or_expression, 2, 0), (sym_bitwise_xor_expression, 2, 0),
     (sym_bitwise_and_expression, 2, 0), (sym_nullable_type, 1, 0),
     (sym_parameter_type_list, 4, 0), (sym_list_literal, 3, 0), (sym_list_pattern, 3, 0),
     (sym_type_arguments, 2, 0), (sym_constructor_tearoff, 3, 0),
     (sym__function_builtin_identifier, 1, 0), (sym_record_type, 10, 0)]"

definition reductions_9 :: "(TSSymbol \<times> nat \<times> nat) list" where
  "reductions_9 = [
     (sym_type_parameters, 3, 0), (sym_if_null_expression, 2, 20),
     (sym__type_dot_identifier, 2, 7), (aux_sym__if_null_expression, 2, 37),
     (sym__bool_literal, 1, 0), (sym_symbol_literal, 2, 0), (sym_new_expression, 3, 0),
     (sym_type_test, 2, 0), (sym_type_cast, 2, 0), (sym_function_expression_body, 2, 0),
     (sym_record_literal, 1, 0), (sym_switch_expression, 6, 73),
     (sym_throw_expression_without_cascade, 2, 0), (sym_pattern_assignment, 3, 0),
     (sym_postfix_operator, 1, 0), (sym_super, 1, 0), (sym_constructor_invocation, 5, 0),
     (sym__record_literal_no_const, 4, 0), (sym_conditional_expression, 5, 72),
     (sym_assignment_expression_without_cascade, 3, 38), (sym_assignment_expression, 3, 38),
     (sym_this, 1, 0), (sym__new_builtin, 1, 0), (sym_type_cast_expression, 2, 0),
     (sym_type_test_expression, 2, 0), (sym_const_object_expression, 3, 0),
     (sym_function_expression, 2, 21), (sym__exclamation_operator, 1, 0),
     (sym_await_expression, 2, 0), (sym_unary_expression, 2, 0), (sym__numeric_literal, 1, 0),
     (sym_true, 1, 0), (sym_false, 1, 0), (sym_null_literal, 1, 0)]"

definition reductions_10 :: "(TSSymbol \<times> nat \<times> nat) list" where
  "reductions_10 = [
     (sym_switch_expression, 5, 60), (sym__literal, 1, 0),
     (sym__cascade_assignment_section, 2, 0), (sym__unary_expression, 1, 0),
     (sym_rethrow_expression, 1, 0), (sym_switch_expression, 7, 84),
     (sym_throw_expression, 2, 0), (aux_sym_program_repeat1, 2, 0),
     (sym__identifier_or_new, 1, 0), (sym_annotation, 2, 2), (sym__metadata, 1, 0),
     (sym_scoped_identifier, 3, 11), (aux_sym__metadata_repeat1, 2, 0),
     (sym__assignment_operator, 1, 0), (sym_prefix_operator, 1, 0),
     (sym_logical_and_operator, 1, 0), (sym_shift_operator, 1, 0),
     (sym_logical_or_operator, 1, 0), (sym_additive_operator, 1, 0),
     (sym__shift_operator, 1, 0)]"

definition reductions_11 :: "(TSSymbol \<times> nat \<times> nat) list" where
  "reductions_11 = [
     (sym_tilde_operator, 1, 0), (sym__multiplicative_operator, 1, 0),
     (sym_multiplicative_operator, 1, 0), (aux_sym_program_repeat2, 2, 0),
     (sym_case_builtin, 1, 0), (sym_negation_operator, 1, 0), (aux_sym_program_repeat3, 2, 0),
     (sym_script_tag, 3, 0), (sym_import_specification, 6, 0), (sym_library_name, 3, 0),
     (sym_library_export, 4, 0), (sym_library_import, 2, 0), (sym_import_or_export, 1, 0),
     (sym__external_and_static, 1, 0), (sym_part_directive, 4, 0)]"

definition reductions_12 :: "(TSSymbol \<times> nat \<times> nat) list" where
  "reductions_12 = [
     (sym_part_of_directive, 3, 0), (sym__native, 1, 0), (sym__var_or_type, 1, 0),
     (sym_class_definition, 5, 33), (sym_extension_declaration, 4, 13),
     (sym_extension_body, 3, 0), (sym_mixin_declaration, 8, 0),
     (sym__top_level_definition, 4, 0), (sym_extension_declaration, 6, 45),
     (sym_enum_declaration, 7, 57), (sym_enum_declaration, 6, 44), (sym_class_definition, 6, 43),
     (sym_mixin_application_class, 5, 0), (sym_class_definition, 4, 15),
     (sym_extension_declaration, 7, 58), (sym_class_definition, 7, 59),
     (sym_class_definition, 4, 16), (sym_extension_declaration, 6, 46), (sym_type_alias, 7, 0),
     (sym_class_definition, 5, 26), (sym_class_definition, 5, 27), (sym_class_definition, 5, 28),
     (sym_class_definition, 6, 47), (sym_enum_declaration, 3, 5),
     (sym_extension_declaration, 6, 41), (sym_enum_declaration, 5, 29),
     (sym_extension_declaration, 5, 30), (sym_class_definition, 4, 17),
     (sym_class_definition, 6, 48), (sym_enum_declaration, 4, 18), (sym_class_definition, 6, 49),
     (sym__final_const_var_or_type, 1, 0), (sym_class_definition, 5, 31),
     (sym_class_definition, 5, 32), (sym_enum_declaration, 4, 12),
     (sym_extension_declaration, 5, 24), (sym_extension_declaration, 5, 23),
     (sym_enum_body, 6, 0), (sym_enum_declaration, 5, 22), (sym_enum_declaration, 6, 40),
     (sym_class_body, 3, 0), (sym__type, 1, 0), (sym__external, 1, 0)]"

definition reductions_13 :: "(TSSymbol \<times> nat \<times> nat) list" where
  "reductions_13 = [
     (sym__operator, 1, 0), (sym__final_var_or_type, 1, 0)]"

definition reductions_14 :: "(TSSymbol \<times> nat \<times> nat) list" where
  "reductions_14 = [
     (sym__strict_formal_parameter_list, 5, 0), (sym__formal_parameter_part, 2, 0),
     (sym_object_pattern, 4, 0), (sym_formal_parameter_list, 1, 0), (sym_record_pattern, 5, 0),
     (sym__parenthesized_pattern, 3, 0), (sym__primary_pattern, 1, 0), (sym_qualified, 5, 0),
     (sym__required, 1, 0), (sym_constructor_param, 4, 0), (sym_variable_pattern, 2, 0),
     (sym__unary_pattern, 1, 0), (sym__logical_and_pattern, 2, 0),
     (aux_sym__logical_and_pattern_repeat1, 2, 0), (sym__static, 1, 0),
     (aux_sym__string_literal_double_quotes_multiple_repeat1, 2, 0),
     (sym__logical_or_pattern, 1, 0), (aux_sym__logical_or_pattern_repeat1, 2, 0),
     (sym__outer_pattern, 1, 0), (sym__external_builtin, 1, 0), (sym_type_parameter, 1, 1)]"

definition reductions_15 :: "(TSSymbol \<times> nat \<times> nat) list" where
  "reductions_15 = [
     (aux_sym__string_literal_single_quotes_multiple_repeat1, 2, 0),
     (sym_method_signature, 1, 0), (sym_declaration, 1, 0), (sym_identifier_list, 1, 0),
     (sym_inferred_type, 1, 0), (aux_sym_switch_block_repeat1, 2, 0),
     (sym_null_assert_pattern, 2, 0), (sym_null_check_pattern, 2, 0), (sym_enum_constant, 1, 3),
     (aux_sym__raw_string_literal_single_quotes_multiple_repeat1, 2, 0),
     (aux_sym__raw_string_literal_double_quotes_multiple_repeat1, 2, 0),
     (aux_sym__string_literal_single_quotes_repeat1, 2, 0),
     (aux_sym__string_literal_double_quotes_repeat1, 2, 0), (sym_cast_pattern, 3, 0),
     (sym_initialized_identifier, 1, 0), (sym_configurable_uri, 1, 0), (sym_final_builtin, 1, 0),
     (sym_initializers, 3, 0), (sym_operator_signature, 4, 0),
     (sym_configuration_uri_condition, 3, 0), (sym__covariant, 1, 0), (sym__export, 1, 0),
     (sym__import, 1, 0), (sym__function_formal_parameter, 2, 0)]"

definition reductions_16 :: "(TSSymbol \<times> nat \<times> nat) list" where
  "reductions_16 = [
     (sym_function_signature, 2, 3), (sym__declared_identifier, 2, 2),
     (sym_record_type_field, 2, 0), (aux_sym__raw_string_literal_single_quotes_repeat1, 2, 0),
     (aux_sym__raw_string_literal_double_quotes_repeat1, 2, 0), (sym__declared_identifier, 3, 9),
     (aux_sym_initializers_repeat1, 2, 0), (sym_constructor_signature, 2, 25),
     (sym_typed_identifier, 2, 0), (sym_getter_signature, 3, 9), (sym_function_signature, 3, 10),
     (sym_function_signature, 2, 4), (sym__declared_identifier, 4, 42),
     (sym_setter_signature, 3, 2), (sym_assertion_arguments, 3, 0),
     (sym_constructor_signature, 4, 56), (sym_initializer_list_entry, 2, 0),
     (sym_factory_constructor_signature, 4, 0), (aux_sym_configurable_uri_repeat1, 2, 0),
     (sym__sub_string_test, 2, 0), (sym__pattern, 1, 0), (sym_assertion, 2, 0),
     (sym_template_substitution, 4, 0)]"

definition reductions_17 :: "(TSSymbol \<times> nat \<times> nat) list" where
  "reductions_17 = [
     (sym_escape_sequence, 1, 0), (sym_is_operator, 1, 0), (sym_uri, 1, 0),
     (sym__normal_formal_parameter, 1, 6), (sym_formal_parameter, 1, 6),
     (sym__normal_formal_parameter, 2, 14), (sym__late_builtin, 1, 0), (sym_abstract, 1, 0),
     (sym__element, 1, 0), (aux_sym_factory_constructor_signature_repeat1, 2, 0),
     (aux_sym_switch_statement_case_repeat1, 2, 0), (sym__identifier_list, 2, 0),
     (aux_sym_library_export_repeat1, 2, 0), (sym__for_loop_parts, 3, 65),
     (sym_configuration_uri, 3, 0), (aux_sym__type_not_void_list_repeat1, 2, 0),
     (sym__for_loop_parts, 2, 55), (sym__type_not_void_list, 1, 0),
     (sym_dotted_identifier_list, 2, 0), (sym_initialized_variable_definition, 1, 6),
     (aux_sym_inferred_parameters_repeat1, 2, 0), (sym_if_element, 7, 85),
     (sym_superclass, 2, 0), (sym_spread_element, 3, 0), (sym_for_element, 3, 35),
     (aux_sym_list_literal_repeat1, 2, 0), (sym_pair, 3, 50), (sym_mixin_application, 2, 0),
     (sym__final_or_const, 1, 0), (sym__implements, 1, 0), (sym__default_named_parameter, 2, 0),
     (sym__typedef, 1, 0), (aux_sym_parameter_type_list_repeat1, 2, 0),
     (sym_normal_parameter_type, 1, 0)]"

definition reductions_18 :: "(TSSymbol \<times> nat \<times> nat) list" where
  "reductions_18 = [
     (aux_sym_enum_body_repeat1, 2, 0), (sym_as_operator, 1, 0), (sym__guarded_pattern, 1, 0),
     (sym__for_loop_parts, 3, 70), (sym__for_loop_parts, 3, 71),
     (aux_sym_record_pattern_repeat1, 2, 0), (sym_initialized_identifier_list, 2, 0),
     (sym__for_loop_parts, 3, 68), (aux_sym__record_literal_no_const_repeat1, 2, 0),
     (aux_sym_initialized_identifier_list_repeat1, 2, 0),
     (aux_sym__for_loop_parts_repeat1, 2, 66), (sym_combinator, 2, 0),
     (aux_sym_record_type_repeat2, 2, 0), (sym__normal_formal_parameters, 1, 0),
     (aux_sym_list_pattern_repeat1, 2, 0), (aux_sym_switch_expression_repeat1, 2, 0),
     (aux_sym_type_parameters_repeat1, 2, 0), (sym__for_loop_parts, 4, 75),
     (sym__for_loop_parts, 4, 76), (sym_static_final_declaration_list, 2, 0),
     (sym__for_loop_parts, 4, 79), (sym__for_loop_parts, 4, 80), (sym__for_loop_parts, 4, 81),
     (sym__set, 1, 0), (aux_sym__normal_formal_parameters_repeat1, 2, 0)]"

definition reductions_19 :: "(TSSymbol \<times> nat \<times> nat) list" where
  "reductions_19 = [
     (aux_sym__for_loop_parts_repeat2, 2, 82), (sym__for_loop_parts, 4, 83),
     (aux_sym_map_pattern_repeat1, 2, 0), (sym__get, 1, 0),
     (sym_initialized_variable_definition, 4, 39), (sym__for_loop_parts, 5, 88),
     (sym__for_loop_parts, 5, 90), (sym__for_loop_parts, 5, 91), (sym__for_loop_parts, 5, 92),
     (aux_sym_named_parameter_types_repeat1, 2, 0), (sym__for_loop_parts, 6, 93),
     (sym__for_loop_parts, 6, 94), (sym__for_loop_parts, 6, 95), (sym__for_loop_parts, 7, 97),
     (aux_sym_record_type_repeat1, 2, 0)]"

definition reductions_20 :: "(TSSymbol \<times> nat \<times> nat) list" where
  "reductions_20 = [
     (sym__for_loop_parts, 5, 87), (aux_sym_positional_parameters_repeat1, 2, 0),
     (sym_mixins, 2, 0), (aux_sym_static_final_declaration_list_repeat1, 2, 0),
     (aux_sym__named_formal_parameters_repeat1, 2, 0), (sym__default_formal_parameter, 1, 0),
     (aux_sym__argument_list_repeat1, 2, 0), (aux_sym_type_arguments_repeat1, 2, 0),
     (sym__pattern_field, 1, 0), (sym__named_parameter_type, 3, 0), (sym_uri_test, 1, 0),
     (sym_static_final_declaration, 3, 0), (sym__any_argument, 1, 0),
     (sym_constant_constructor_signature, 3, 0), (sym_argument, 1, 0), (sym_record_field, 1, 0),
     (sym_interfaces, 2, 0), (sym_record_type_named_field, 2, 0), (sym_base, 1, 0),
     (sym__list_pattern_element, 1, 0), (sym_mixin, 1, 0),
     (sym_redirecting_factory_constructor_signature, 7, 0),
     (aux_sym__for_loop_parts_repeat1, 2, 64)]"

definition reductions_21 :: "(TSSymbol \<times> nat \<times> nat) list" where
  "reductions_21 = [
     (sym_named_argument, 2, 0), (sym_type_bound, 2, 0), (sym_switch_expression_case, 3, 0),
     (sym__for_loop_parts, 4, 78), (sym__mixin_class_modifiers, 4, 0),
     (sym__optional_postional_formal_parameters, 3, 0), (sym__bitwise_operator, 1, 0),
     (sym_binary_operator, 1, 0), (sym_bitwise_operator, 1, 0),
     (sym_optional_positional_parameter_types, 5, 0), (sym_named_parameter_types, 5, 0),
     (sym_catch_parameters, 3, 0)]"

definition reductions_22 :: "(TSSymbol \<times> nat \<times> nat) list" where
  "reductions_22 = [
     (sym__named_formal_parameters, 3, 0), (sym_redirection, 5, 0),
     (sym_optional_formal_parameters, 1, 0), (sym_nullable_selector, 1, 0),
     (sym_catch_clause, 2, 0), (sym__class_modifiers, 2, 0), (sym__for_loop_parts, 3, 63),
     (sym_optional_parameter_types, 1, 0), (sym_sealed, 1, 0), (sym_interface, 1, 0),
     (sym__deferred, 1, 0), (sym__dot_identifier, 2, 0), (sym__as, 1, 0),
     (sym_pattern_variable_declaration, 4, 0), (sym__factory, 1, 0),
     (sym_documentation_comment, 1, 0), (sym_comment, 3, 0)]"

lemma reductions_in_1: "list_all (\<lambda>r. r \<in> set (reductions ts_parse_actions_1)) reductions_1"
  by (simp add: reductions_def ts_parse_actions_1_def reductions_1_def)

lemma reductions_in_2: "list_all (\<lambda>r. r \<in> set (reductions ts_parse_actions_2)) reductions_2"
  by (simp add: reductions_def ts_parse_actions_2_def reductions_2_def)

lemma reductions_in_3: "list_all (\<lambda>r. r \<in> set (reductions ts_parse_actions_3)) reductions_3"
  by (simp add: reductions_def ts_parse_actions_3_def reductions_3_def)

lemma reductions_in_4: "list_all (\<lambda>r. r \<in> set (reductions ts_parse_actions_4)) reductions_4"
  by (simp add: reductions_def ts_parse_actions_4_def reductions_4_def)

lemma reductions_in_5: "list_all (\<lambda>r. r \<in> set (reductions ts_parse_actions_5)) reductions_5"
  by (simp add: reductions_def ts_parse_actions_5_def reductions_5_def)

lemma reductions_in_6: "list_all (\<lambda>r. r \<in> set (reductions ts_parse_actions_6)) reductions_6"
  by (simp add: reductions_def ts_parse_actions_6_def reductions_6_def)

lemma reductions_in_7: "list_all (\<lambda>r. r \<in> set (reductions ts_parse_actions_7)) reductions_7"
  by (simp add: reductions_def ts_parse_actions_7_def reductions_7_def)

lemma reductions_in_8: "list_all (\<lambda>r. r \<in> set (reductions ts_parse_actions_8)) reductions_8"
  by (simp add: reductions_def ts_parse_actions_8_def reductions_8_def)

lemma reductions_in_9: "list_all (\<lambda>r. r \<in> set (reductions ts_parse_actions_9)) reductions_9"
  by (simp add: reductions_def ts_parse_actions_9_def reductions_9_def)

lemma reductions_in_10: "list_all (\<lambda>r. r \<in> set (reductions ts_parse_actions_10)) reductions_10"
  by (simp add: reductions_def ts_parse_actions_10_def reductions_10_def)

lemma reductions_in_11: "list_all (\<lambda>r. r \<in> set (reductions ts_parse_actions_11)) reductions_11"
  by (simp add: reductions_def ts_parse_actions_11_def reductions_11_def)

lemma reductions_in_12: "list_all (\<lambda>r. r \<in> set (reductions ts_parse_actions_12)) reductions_12"
  by (simp add: reductions_def ts_parse_actions_12_def reductions_12_def)

lemma reductions_in_13: "list_all (\<lambda>r. r \<in> set (reductions ts_parse_actions_13)) reductions_13"
  by (simp add: reductions_def ts_parse_actions_13_def reductions_13_def)

lemma reductions_in_14: "list_all (\<lambda>r. r \<in> set (reductions ts_parse_actions_14)) reductions_14"
  by (simp add: reductions_def ts_parse_actions_14_def reductions_14_def)

lemma reductions_in_15: "list_all (\<lambda>r. r \<in> set (reductions ts_parse_actions_15)) reductions_15"
  by (simp add: reductions_def ts_parse_actions_15_def reductions_15_def)

lemma reductions_in_16: "list_all (\<lambda>r. r \<in> set (reductions ts_parse_actions_16)) reductions_16"
  by (simp add: reductions_def ts_parse_actions_16_def reductions_16_def)

lemma reductions_in_17: "list_all (\<lambda>r. r \<in> set (reductions ts_parse_actions_17)) reductions_17"
  by (simp add: reductions_def ts_parse_actions_17_def reductions_17_def)

lemma reductions_in_18: "list_all (\<lambda>r. r \<in> set (reductions ts_parse_actions_18)) reductions_18"
  by (simp add: reductions_def ts_parse_actions_18_def reductions_18_def)

lemma reductions_in_19: "list_all (\<lambda>r. r \<in> set (reductions ts_parse_actions_19)) reductions_19"
  by (simp add: reductions_def ts_parse_actions_19_def reductions_19_def)

lemma reductions_in_20: "list_all (\<lambda>r. r \<in> set (reductions ts_parse_actions_20)) reductions_20"
  by (simp add: reductions_def ts_parse_actions_20_def reductions_20_def)

lemma reductions_in_21: "list_all (\<lambda>r. r \<in> set (reductions ts_parse_actions_21)) reductions_21"
  by (simp add: reductions_def ts_parse_actions_21_def reductions_21_def)

lemma reductions_in_22: "list_all (\<lambda>r. r \<in> set (reductions ts_parse_actions_22)) reductions_22"
  by (simp add: reductions_def ts_parse_actions_22_def reductions_22_def)

lemma reductions_parts:
  "set (reductions ts_parse_actions_1) \<subseteq> set (reductions ts_parse_action_groups)"
  "set (reductions ts_parse_actions_2) \<subseteq> set (reductions ts_parse_action_groups)"
  "set (reductions ts_parse_actions_3) \<subseteq> set (reductions ts_parse_action_groups)"
  "set (reductions ts_parse_actions_4) \<subseteq> set (reductions ts_parse_action_groups)"
  "set (reductions ts_parse_actions_5) \<subseteq> set (reductions ts_parse_action_groups)"
  "set (reductions ts_parse_actions_6) \<subseteq> set (reductions ts_parse_action_groups)"
  "set (reductions ts_parse_actions_7) \<subseteq> set (reductions ts_parse_action_groups)"
  "set (reductions ts_parse_actions_8) \<subseteq> set (reductions ts_parse_action_groups)"
  "set (reductions ts_parse_actions_9) \<subseteq> set (reductions ts_parse_action_groups)"
  "set (reductions ts_parse_actions_10) \<subseteq> set (reductions ts_parse_action_groups)"
  "set (reductions ts_parse_actions_11) \<subseteq> set (reductions ts_parse_action_groups)"
  "set (reductions ts_parse_actions_12) \<subseteq> set (reductions ts_parse_action_groups)"
  "set (reductions ts_parse_actions_13) \<subseteq> set (reductions ts_parse_action_groups)"
  "set (reductions ts_parse_actions_14) \<subseteq> set (reductions ts_parse_action_groups)"
  "set (reductions ts_parse_actions_15) \<subseteq> set (reductions ts_parse_action_groups)"
  "set (reductions ts_parse_actions_16) \<subseteq> set (reductions ts_parse_action_groups)"
  "set (reductions ts_parse_actions_17) \<subseteq> set (reductions ts_parse_action_groups)"
  "set (reductions ts_parse_actions_18) \<subseteq> set (reductions ts_parse_action_groups)"
  "set (reductions ts_parse_actions_19) \<subseteq> set (reductions ts_parse_action_groups)"
  "set (reductions ts_parse_actions_20) \<subseteq> set (reductions ts_parse_action_groups)"
  "set (reductions ts_parse_actions_21) \<subseteq> set (reductions ts_parse_action_groups)"
  "set (reductions ts_parse_actions_22) \<subseteq> set (reductions ts_parse_action_groups)"
  by (auto simp: ts_parse_action_groups_def reductions_append)

definition is_reduction :: "TSSymbol \<times> nat \<times> nat \<Rightarrow> bool" where
  "is_reduction r \<longleftrightarrow> r \<in> set (reductions ts_parse_action_groups)"

lemma is_reductionI: "list_all (\<lambda>r. r \<in> set (reductions gs)) rs \<Longrightarrow>
    set (reductions gs) \<subseteq> set (reductions ts_parse_action_groups) \<Longrightarrow> list_all is_reduction rs"
  by (auto simp: list_all_iff is_reduction_def)

lemmas reduction_eqs =
  is_reductionI [OF reductions_in_1 reductions_parts(1), unfolded reductions_1_def list_all_tens One_nat_def]
  is_reductionI [OF reductions_in_2 reductions_parts(2), unfolded reductions_2_def list_all_tens One_nat_def]
  is_reductionI [OF reductions_in_3 reductions_parts(3), unfolded reductions_3_def list_all_tens One_nat_def]
  is_reductionI [OF reductions_in_4 reductions_parts(4), unfolded reductions_4_def list_all_tens One_nat_def]
  is_reductionI [OF reductions_in_5 reductions_parts(5), unfolded reductions_5_def list_all_tens One_nat_def]
  is_reductionI [OF reductions_in_6 reductions_parts(6), unfolded reductions_6_def list_all_tens One_nat_def]
  is_reductionI [OF reductions_in_7 reductions_parts(7), unfolded reductions_7_def list_all_tens One_nat_def]
  is_reductionI [OF reductions_in_8 reductions_parts(8), unfolded reductions_8_def list_all_tens One_nat_def]
  is_reductionI [OF reductions_in_9 reductions_parts(9), unfolded reductions_9_def list_all_tens One_nat_def]
  is_reductionI [OF reductions_in_10 reductions_parts(10), unfolded reductions_10_def list_all_tens One_nat_def]
  is_reductionI [OF reductions_in_11 reductions_parts(11), unfolded reductions_11_def list_all_tens One_nat_def]
  is_reductionI [OF reductions_in_12 reductions_parts(12), unfolded reductions_12_def list_all_tens One_nat_def]
  is_reductionI [OF reductions_in_13 reductions_parts(13), unfolded reductions_13_def list_all_tens One_nat_def]
  is_reductionI [OF reductions_in_14 reductions_parts(14), unfolded reductions_14_def list_all_tens One_nat_def]
  is_reductionI [OF reductions_in_15 reductions_parts(15), unfolded reductions_15_def list_all_tens One_nat_def]
  is_reductionI [OF reductions_in_16 reductions_parts(16), unfolded reductions_16_def list_all_tens One_nat_def]
  is_reductionI [OF reductions_in_17 reductions_parts(17), unfolded reductions_17_def list_all_tens One_nat_def]
  is_reductionI [OF reductions_in_18 reductions_parts(18), unfolded reductions_18_def list_all_tens One_nat_def]
  is_reductionI [OF reductions_in_19 reductions_parts(19), unfolded reductions_19_def list_all_tens One_nat_def]
  is_reductionI [OF reductions_in_20 reductions_parts(20), unfolded reductions_20_def list_all_tens One_nat_def]
  is_reductionI [OF reductions_in_21 reductions_parts(21), unfolded reductions_21_def list_all_tens One_nat_def]
  is_reductionI [OF reductions_in_22 reductions_parts(22), unfolded reductions_22_def list_all_tens One_nat_def]

text \<open>One reduction for each non-terminal, and one for each production id, in their order.\<close>

definition reduced_symbols :: "(TSSymbol \<times> nat \<times> nat) list" where
  "reduced_symbols = [
     (sym_program, 0, 0), (sym__top_level_definition, 4, 0), (sym__bool_literal, 1, 0),
     (sym__numeric_literal, 1, 0), (sym__literal, 1, 0), (sym_symbol_literal, 2, 0),
     (sym_true, 1, 0), (sym_false, 1, 0), (sym_string_literal, 1, 0),
     (sym__string_literal_double_quotes, 3, 0), (sym__string_literal_single_quotes, 2, 0),
     (sym__string_literal_double_quotes_multiple, 2, 0),
     (sym__string_literal_single_quotes_multiple, 2, 0),
     (sym__raw_string_literal_double_quotes, 2, 0),
     (sym__raw_string_literal_single_quotes, 2, 0),
     (sym__raw_string_literal_double_quotes_multiple, 2, 0),
     (sym__raw_string_literal_single_quotes_multiple, 3, 0), (sym_template_substitution, 4, 0),
     (sym__sub_string_test, 2, 0), (sym_escape_sequence, 1, 0), (sym_list_literal, 3, 0),
     (sym_set_or_map_literal, 2, 0), (sym_pair, 3, 50), (sym__element, 1, 0),
     (sym_null_literal, 1, 0), (sym_record_literal, 1, 0), (sym__record_literal_no_const, 4, 0),
     (sym_record_field, 1, 0), (sym__expression, 1, 0), (sym__expression_without_cascade, 1, 0),
     (sym__real_expression, 1, 0), (sym_throw_expression, 2, 0),
     (sym_throw_expression_without_cascade, 2, 0), (sym_rethrow_expression, 1, 0),
     (sym_assignment_expression, 3, 38), (sym_assignment_expression_without_cascade, 3, 38),
     (sym_assignable_expression, 1, 0), (sym__assignable_selector_part, 1, 0),
     (sym__assignment_operator, 1, 0), (sym_lambda_expression, 2, 21),
     (sym_function_expression, 2, 21), (sym_if_null_expression, 2, 20),
     (aux_sym__if_null_expression, 2, 36), (sym_conditional_expression, 5, 72),
     (sym_logical_or_expression, 2, 0), (sym_logical_and_expression, 2, 0),
     (sym_equality_expression, 3, 0), (sym_type_cast_expression, 2, 0),
     (sym_type_test_expression, 2, 0), (sym_relational_expression, 3, 0),
     (sym_relational_operator, 1, 0), (sym_bitwise_or_expression, 2, 0),
     (sym_bitwise_xor_expression, 2, 0), (sym_bitwise_and_expression, 2, 0),
     (sym_shift_expression, 2, 0), (sym_additive_expression, 2, 0),
     (sym_multiplicative_expression, 2, 0), (sym_bitwise_operator, 1, 0),
     (sym__bitwise_operator, 1, 0), (sym_shift_operator, 1, 0), (sym__shift_operator, 1, 0),
     (sym_additive_operator, 1, 0), (sym_multiplicative_operator, 1, 0),
     (sym__multiplicative_operator, 1, 0), (sym__unary_expression, 1, 0),
     (sym_unary_expression, 2, 0), (sym__postfix_expression, 1, 0),
     (sym_postfix_expression, 1, 0), (sym_postfix_operator, 1, 0), (sym_spread_element, 3, 0),
     (sym_selector, 1, 0), (sym_prefix_operator, 1, 0), (sym_negation_operator, 1, 0),
     (sym__exclamation_operator, 1, 0), (sym_tilde_operator, 1, 0), (sym_await_expression, 2, 0),
     (sym_type_test, 2, 0), (sym_is_operator, 1, 0), (sym_type_cast, 2, 0),
     (sym_as_operator, 1, 0), (sym_new_expression, 3, 0), (sym__dot_identifier, 2, 0),
     (sym_const_object_expression, 3, 0), (sym__primary, 1, 0),
     (sym_parenthesized_expression, 3, 0), (sym_constructor_invocation, 5, 0),
     (sym_constructor_tearoff, 3, 0), (sym_arguments, 2, 0), (sym__argument_list, 3, 0),
     (sym__any_argument, 1, 0), (sym_argument, 1, 0), (sym_named_argument, 2, 0),
     (sym_cascade_section, 3, 0), (sym__cascade_subsection, 2, 0),
     (sym__cascade_assignment_section, 2, 0), (sym_index_selector, 3, 0),
     (sym_cascade_selector, 2, 0), (sym_argument_part, 1, 0),
     (sym_unconditional_assignable_selector, 1, 0), (sym_conditional_assignable_selector, 2, 0),
     (sym__assignable_selector, 1, 0), (sym_type_arguments, 2, 0), (sym__statement, 1, 0),
     (sym_local_function_declaration, 1, 0), (sym_block, 2, 0), (sym_expression_statement, 2, 0),
     (sym_assert_statement, 2, 0), (sym_assertion, 2, 0), (sym_assertion_arguments, 3, 0),
     (sym_switch_statement, 3, 34), (sym_switch_expression, 6, 73),
     (sym_switch_expression_case, 3, 0), (sym__guarded_pattern, 1, 0), (sym__pattern, 1, 0),
     (sym__logical_or_pattern, 1, 0), (sym__logical_and_pattern, 2, 0),
     (sym__relational_pattern, 2, 0), (sym__unary_pattern, 1, 0), (sym__primary_pattern, 1, 0),
     (sym_cast_pattern, 3, 0), (sym_null_check_pattern, 2, 0), (sym_null_assert_pattern, 2, 0),
     (sym_constant_pattern, 1, 0), (sym_variable_pattern, 2, 0),
     (sym__parenthesized_pattern, 3, 0), (sym_list_pattern, 3, 0),
     (sym__list_pattern_element, 1, 0), (sym_rest_pattern, 1, 0), (sym_map_pattern, 2, 0),
     (sym__map_pattern_entry, 1, 0), (sym_record_pattern, 5, 0), (sym__pattern_field, 1, 0),
     (sym_object_pattern, 4, 0), (sym_pattern_variable_declaration, 4, 0),
     (sym__outer_pattern, 1, 0), (sym_pattern_assignment, 3, 0), (sym_switch_block, 3, 0),
     (sym_switch_statement_case, 5, 0), (sym_switch_statement_default, 3, 0),
     (sym_do_statement, 5, 61), (sym_break_statement, 2, 0), (sym_continue_statement, 3, 0),
     (sym_yield_statement, 3, 0), (sym_yield_each_statement, 4, 0), (sym_return_statement, 3, 0),
     (sym_try_statement, 2, 8), (sym__on_part, 3, 0), (sym__try_head, 2, 19),
     (sym_catch_clause, 2, 0), (sym_catch_parameters, 3, 0), (sym_finally_clause, 2, 0),
     (sym_if_element, 7, 85), (sym_if_statement, 9, 96), (sym_while_statement, 3, 34),
     (sym_for_statement, 4, 51), (sym_for_loop_parts, 3, 53), (sym__for_loop_parts, 1, 0),
     (sym_for_element, 3, 35), (sym_annotation, 2, 2), (sym_import_or_export, 1, 0),
     (sym_library_import, 2, 0), (sym_library_export, 4, 0), (sym_import_specification, 6, 0),
     (sym_part_directive, 4, 0), (sym_part_of_directive, 3, 0), (sym_uri, 1, 0),
     (sym_configurable_uri, 1, 0), (sym_configuration_uri, 3, 0),
     (sym_configuration_uri_condition, 3, 0), (sym_uri_test, 1, 0), (sym_combinator, 2, 0),
     (sym__identifier_list, 2, 0), (sym_enum_declaration, 7, 57), (sym_enum_body, 6, 0),
     (sym_enum_constant, 1, 3), (sym_type_alias, 7, 0), (sym__class_modifiers, 2, 0),
     (sym__mixin_class_modifiers, 4, 0), (sym_class_definition, 5, 33),
     (sym_extension_declaration, 4, 13), (sym__metadata, 1, 0), (sym_type_parameters, 3, 0),
     (sym_type_parameter, 1, 1), (sym_type_bound, 2, 0), (sym_superclass, 2, 0),
     (sym_mixins, 2, 0), (sym_mixin_application_class, 5, 0), (sym_mixin_application, 2, 0),
     (sym_mixin_declaration, 8, 0), (sym_interfaces, 2, 0), (sym_class_body, 3, 0),
     (sym_extension_body, 3, 0), (sym_getter_signature, 3, 9), (sym_setter_signature, 3, 2),
     (sym_method_signature, 1, 0), (sym_declaration, 1, 0), (sym_identifier_list, 1, 0),
     (sym_initialized_identifier_list, 2, 0), (sym_initialized_identifier, 1, 0),
     (sym_static_final_declaration_list, 2, 0), (sym_binary_operator, 1, 0),
     (sym_operator_signature, 4, 0), (sym_static_final_declaration, 3, 0),
     (sym__external_and_static, 1, 0), (sym__final_or_const, 1, 0), (sym_initializers, 3, 0),
     (sym_initializer_list_entry, 2, 0), (sym_field_initializer, 5, 0),
     (sym_factory_constructor_signature, 4, 0),
     (sym_redirecting_factory_constructor_signature, 7, 0), (sym_redirection, 5, 0),
     (sym_constructor_signature, 2, 25), (sym_constant_constructor_signature, 3, 0),
     (sym_scoped_identifier, 3, 11), (sym_initialized_variable_definition, 1, 6),
     (sym__declared_identifier, 2, 2), (sym__final_const_var_or_type, 1, 0), (sym__type, 1, 0),
     (sym__type_not_function, 1, 0), (sym__type_not_void_not_function, 1, 0),
     (sym_function_type, 1, 0), (aux_sym__function_type_tails, 2, 0),
     (sym__function_type_tail, 1, 0), (sym_parameter_type_list, 4, 0),
     (sym_normal_parameter_type, 1, 0), (sym_optional_parameter_types, 1, 0),
     (sym_optional_positional_parameter_types, 5, 0), (sym_named_parameter_types, 5, 0),
     (sym__named_parameter_type, 3, 0), (sym__type_not_void, 1, 0), (sym_record_type, 2, 0),
     (sym_record_type_field, 2, 0), (sym_record_type_named_field, 2, 0),
     (sym__type_not_void_list, 1, 0), (sym__type_name, 1, 1), (sym__type_dot_identifier, 2, 7),
     (sym_typed_identifier, 2, 0), (sym_nullable_type, 1, 0), (sym_nullable_selector, 1, 0),
     (sym__var_or_type, 1, 0), (sym__final_var_or_type, 1, 0), (sym_inferred_type, 1, 0),
     (sym_function_body, 1, 0), (sym_function_expression_body, 2, 0),
     (sym_function_signature, 2, 3), (sym__formal_parameter_part, 2, 0),
     (sym_formal_parameter_list, 1, 0), (sym__strict_formal_parameter_list, 5, 0),
     (sym__normal_formal_parameters, 1, 0), (sym_optional_formal_parameters, 1, 0),
     (sym__optional_postional_formal_parameters, 3, 0), (sym__named_formal_parameters, 3, 0),
     (sym_formal_parameter, 1, 6), (sym__default_formal_parameter, 1, 0),
     (sym__default_named_parameter, 2, 0), (sym__normal_formal_parameter, 1, 6),
     (sym__function_formal_parameter, 2, 0), (sym__simple_formal_parameter, 1, 0),
     (sym_super_formal_parameter, 3, 0), (sym_constructor_param, 4, 0),
     (sym_local_variable_declaration, 2, 0), (sym_script_tag, 3, 0), (sym_library_name, 3, 0),
     (sym_dotted_identifier_list, 2, 0), (sym__identifier_or_new, 1, 0), (sym_qualified, 5, 0),
     (sym__as, 1, 0), (sym_case_builtin, 1, 0), (sym__covariant, 1, 0), (sym__deferred, 1, 0),
     (sym__export, 1, 0), (sym__external, 1, 0), (sym__factory, 1, 0),
     (sym__function_builtin_identifier, 1, 0), (sym__get, 1, 0), (sym__native, 1, 0),
     (sym__implements, 1, 0), (sym__import, 1, 0), (sym_interface, 1, 0), (sym_base, 1, 0),
     (sym_abstract, 1, 0), (sym_sealed, 1, 0), (sym__operator, 1, 0), (sym_mixin, 1, 0),
     (sym__required, 1, 0), (sym__set, 1, 0), (sym__static, 1, 0), (sym__typedef, 1, 0),
     (sym__new_builtin, 1, 0), (sym_logical_and_operator, 1, 0), (sym_logical_or_operator, 1, 0),
     (sym_final_builtin, 1, 0), (sym__late_builtin, 1, 0), (sym__external_builtin, 1, 0),
     (sym_this, 1, 0), (sym_super, 1, 0), (sym_label, 2, 0), (sym__semicolon, 1, 0),
     (sym_comment, 3, 0), (sym_documentation_comment, 1, 0), (aux_sym_program_repeat1, 2, 0),
     (aux_sym_program_repeat2, 2, 0), (aux_sym_program_repeat3, 2, 0),
     (aux_sym_program_repeat4, 2, 0), (aux_sym_string_literal_repeat1, 2, 0),
     (aux_sym__string_literal_double_quotes_repeat1, 2, 0),
     (aux_sym__string_literal_single_quotes_repeat1, 2, 0),
     (aux_sym__string_literal_double_quotes_multiple_repeat1, 2, 0),
     (aux_sym__string_literal_single_quotes_multiple_repeat1, 2, 0),
     (aux_sym__raw_string_literal_double_quotes_repeat1, 2, 0),
     (aux_sym__raw_string_literal_single_quotes_repeat1, 2, 0),
     (aux_sym__raw_string_literal_double_quotes_multiple_repeat1, 2, 0),
     (aux_sym__raw_string_literal_single_quotes_multiple_repeat1, 2, 0),
     (aux_sym_list_literal_repeat1, 2, 0), (aux_sym__record_literal_no_const_repeat1, 2, 0),
     (aux_sym__expression_repeat1, 2, 0), (aux_sym__assignable_selector_part_repeat1, 2, 0),
     (aux_sym_inferred_parameters_repeat1, 2, 0), (aux_sym_logical_or_expression_repeat1, 2, 0),
     (aux_sym_logical_and_expression_repeat1, 2, 0),
     (aux_sym_bitwise_or_expression_repeat1, 2, 0),
     (aux_sym_bitwise_xor_expression_repeat1, 2, 0),
     (aux_sym_bitwise_and_expression_repeat1, 2, 0), (aux_sym_shift_expression_repeat1, 2, 0),
     (aux_sym_additive_expression_repeat1, 2, 0),
     (aux_sym_multiplicative_expression_repeat1, 2, 0), (aux_sym__argument_list_repeat1, 2, 0),
     (aux_sym_cascade_section_repeat1, 2, 0), (aux_sym_cascade_section_repeat2, 2, 0),
     (aux_sym_type_arguments_repeat1, 2, 0), (aux_sym_block_repeat1, 2, 0),
     (aux_sym_switch_expression_repeat1, 2, 0), (aux_sym__logical_or_pattern_repeat1, 2, 0),
     (aux_sym__logical_and_pattern_repeat1, 2, 0), (aux_sym_list_pattern_repeat1, 2, 0),
     (aux_sym_map_pattern_repeat1, 2, 0), (aux_sym_record_pattern_repeat1, 2, 0),
     (aux_sym_switch_block_repeat1, 2, 0), (aux_sym_switch_statement_case_repeat1, 2, 0),
     (aux_sym_try_statement_repeat1, 2, 0), (aux_sym__for_loop_parts_repeat1, 2, 66),
     (aux_sym__for_loop_parts_repeat2, 2, 82), (aux_sym_library_export_repeat1, 2, 0),
     (aux_sym_configurable_uri_repeat1, 2, 0), (aux_sym_enum_body_repeat1, 2, 0),
     (aux_sym_enum_body_repeat2, 2, 0), (aux_sym__metadata_repeat1, 2, 0),
     (aux_sym_type_parameters_repeat1, 2, 0), (aux_sym_extension_body_repeat1, 2, 0),
     (aux_sym_initialized_identifier_list_repeat1, 2, 0),
     (aux_sym_static_final_declaration_list_repeat1, 2, 0), (aux_sym_initializers_repeat1, 2, 0),
     (aux_sym_factory_constructor_signature_repeat1, 2, 0),
     (aux_sym_parameter_type_list_repeat1, 2, 0), (aux_sym_named_parameter_types_repeat1, 2, 0),
     (aux_sym_record_type_repeat1, 2, 0), (aux_sym_record_type_repeat2, 2, 0),
     (aux_sym__type_not_void_list_repeat1, 2, 0),
     (aux_sym__normal_formal_parameters_repeat1, 2, 0),
     (aux_sym_positional_parameters_repeat1, 2, 0),
     (aux_sym__named_formal_parameters_repeat1, 2, 0)]"

definition reduced_productions :: "(TSSymbol \<times> nat \<times> nat) list" where
  "reduced_productions = [
     (sym_program, 0, 0), (sym__type_name, 1, 1), (sym_annotation, 2, 2),
     (sym_enum_constant, 1, 3), (sym_function_signature, 2, 4), (sym_enum_declaration, 3, 5),
     (sym__normal_formal_parameter, 1, 6), (sym__type_dot_identifier, 2, 7),
     (sym_try_statement, 2, 8), (sym__declared_identifier, 3, 9),
     (sym_function_signature, 3, 10), (sym_scoped_identifier, 3, 11),
     (sym_enum_declaration, 4, 12), (sym_extension_declaration, 4, 13),
     (sym__normal_formal_parameter, 2, 14), (sym_class_definition, 4, 15),
     (sym_class_definition, 4, 16), (sym_class_definition, 4, 17), (sym_enum_declaration, 4, 18),
     (sym__try_head, 2, 19), (sym_if_null_expression, 2, 20), (sym_lambda_expression, 2, 21),
     (sym_enum_declaration, 5, 22), (sym_extension_declaration, 5, 23),
     (sym_extension_declaration, 5, 24), (sym_constructor_signature, 2, 25),
     (sym_class_definition, 5, 26), (sym_class_definition, 5, 27), (sym_class_definition, 5, 28),
     (sym_enum_declaration, 5, 29), (sym_extension_declaration, 5, 30),
     (sym_class_definition, 5, 31), (sym_class_definition, 5, 32), (sym_class_definition, 5, 33),
     (sym_while_statement, 3, 34), (sym_for_statement, 3, 35),
     (aux_sym__if_null_expression, 2, 36), (aux_sym__if_null_expression, 2, 37),
     (sym_assignment_expression_without_cascade, 3, 38),
     (sym_initialized_variable_definition, 4, 39), (sym_enum_declaration, 6, 40),
     (sym_extension_declaration, 6, 41), (sym__declared_identifier, 4, 42),
     (sym_class_definition, 6, 43), (sym_enum_declaration, 6, 44),
     (sym_extension_declaration, 6, 45), (sym_extension_declaration, 6, 46),
     (sym_class_definition, 6, 47), (sym_class_definition, 6, 48), (sym_class_definition, 6, 49),
     (sym_pair, 3, 50), (sym_for_statement, 4, 51), (sym__for_loop_parts, 2, 52),
     (sym_for_loop_parts, 3, 53), (sym__for_loop_parts, 2, 54), (sym__for_loop_parts, 2, 55),
     (sym_constructor_signature, 4, 56), (sym_enum_declaration, 7, 57),
     (sym_extension_declaration, 7, 58), (sym_class_definition, 7, 59),
     (sym_switch_expression, 5, 60), (sym_do_statement, 5, 61), (sym_if_statement, 5, 62),
     (sym__for_loop_parts, 3, 63), (aux_sym__for_loop_parts_repeat1, 2, 64),
     (sym__for_loop_parts, 3, 65), (aux_sym__for_loop_parts_repeat1, 2, 66),
     (sym__for_loop_parts, 3, 67), (sym__for_loop_parts, 3, 68), (sym__for_loop_parts, 3, 69),
     (sym__for_loop_parts, 3, 70), (sym__for_loop_parts, 3, 71),
     (sym_conditional_expression, 5, 72), (sym_switch_expression, 6, 73),
     (sym__for_loop_parts, 4, 74), (sym__for_loop_parts, 4, 75), (sym__for_loop_parts, 4, 76),
     (sym__for_loop_parts, 4, 77), (sym__for_loop_parts, 4, 78), (sym__for_loop_parts, 4, 79),
     (sym__for_loop_parts, 4, 80), (sym__for_loop_parts, 4, 81),
     (aux_sym__for_loop_parts_repeat2, 2, 82), (sym__for_loop_parts, 4, 83),
     (sym_switch_expression, 7, 84), (sym_if_statement, 7, 85), (sym_if_statement, 7, 86),
     (sym__for_loop_parts, 5, 87), (sym__for_loop_parts, 5, 88), (sym__for_loop_parts, 5, 89),
     (sym__for_loop_parts, 5, 90), (sym__for_loop_parts, 5, 91), (sym__for_loop_parts, 5, 92),
     (sym__for_loop_parts, 6, 93), (sym__for_loop_parts, 6, 94), (sym__for_loop_parts, 6, 95),
     (sym_if_statement, 9, 96), (sym__for_loop_parts, 7, 97)]"

lemma reduced_are_reductions:
  "list_all is_reduction reduced_symbols" "list_all is_reduction reduced_productions"
  "is_reduction (sym_record_type, MAX_ALIAS_SEQUENCE_LENGTH, 0)"
  by (simp_all add: reduced_symbols_def reduced_productions_def reduction_eqs)

lemma reduced_keys:
  "map fst reduced_symbols = [TOKEN_COUNT..<SYMBOL_COUNT]"
  "map (snd \<circ> snd) reduced_productions = [0..<PRODUCTION_ID_COUNT]"
  by (simp_all add: reduced_symbols_def reduced_productions_def upt_from_0)

text \<open>All reductions together: exactly the non-terminals and the production ids are reduced.\<close>

lemma reductions_bounds:
  assumes "ACTION (REDUCE y n d p) \<in> set ts_parse_actions"
  shows "TOKEN_COUNT \<le> y" and "y < SYMBOL_COUNT" and "p < PRODUCTION_ID_COUNT"
    and "n \<le> MAX_ALIAS_SEQUENCE_LENGTH"
proof -
  from assms obtain i count reusable actions where
    "(i, count, reusable, actions) \<in> set ts_parse_action_groups" "REDUCE y n d p \<in> set actions"
    unfolding action_in_groups by blast
  with actions_ok_all have "action_ok (REDUCE y n d p)" by (fastforce simp: list_all_iff group_ok_def)
  then show "TOKEN_COUNT \<le> y" "y < SYMBOL_COUNT" "p < PRODUCTION_ID_COUNT" "n \<le> MAX_ALIAS_SEQUENCE_LENGTH"
    by simp_all
qed

lemma reduction_action: "is_reduction (y, n, p) \<Longrightarrow> \<exists>d. ACTION (REDUCE y n d p) \<in> set ts_parse_actions"
  by (simp add: is_reduction_def reductions_actions)

lemma symbol_reduced_iff: "(\<exists>n d p. ACTION (REDUCE y n d p) \<in> set ts_parse_actions) \<longleftrightarrow> TOKEN_COUNT \<le> y \<and> y < SYMBOL_COUNT"
proof
  assume "TOKEN_COUNT \<le> y \<and> y < SYMBOL_COUNT"
  then have "y \<in> set (map fst reduced_symbols)" by (simp add: reduced_keys del: upt_rec_numeral set_map)
  with reduced_are_reductions(1) obtain n p where "is_reduction (y, n, p)" by (auto simp: list_all_iff)
  from reduction_action [OF this] show "\<exists>n d p. ACTION (REDUCE y n d p) \<in> set ts_parse_actions" by blast
qed (use reductions_bounds in blast)

lemma production_reduced_iff: "(\<exists>y n d. ACTION (REDUCE y n d p) \<in> set ts_parse_actions) \<longleftrightarrow> p < PRODUCTION_ID_COUNT"
proof
  assume "p < PRODUCTION_ID_COUNT"
  then have "p \<in> set (map (snd \<circ> snd) reduced_productions)"
    by (simp add: reduced_keys del: upt_rec_numeral set_map)
  with reduced_are_reductions(2) obtain y n where "is_reduction (y, n, p)" by (auto simp: list_all_iff)
  from reduction_action [OF this] show "\<exists>y n d. ACTION (REDUCE y n d p) \<in> set ts_parse_actions" by blast
qed (use reductions_bounds in blast)

lemma longest_reduction: "\<exists>y d p. ACTION (REDUCE y MAX_ALIAS_SEQUENCE_LENGTH d p) \<in> set ts_parse_actions"
  using reduction_action [OF reduced_are_reductions(3)] by blast

subsection \<open>Fields\<close>

lemma fields_used: "field_id ` set ts_field_map_entries = {1..FIELD_COUNT}"
proof
  show "field_id ` set ts_field_map_entries \<subseteq> {1..FIELD_COUNT}"
    using entries_fields by (auto simp: list_all_iff)
  have "list_all (\<lambda>f. f \<in> field_id ` set ts_field_map_entries) [1..<21]"
    by (simp add: upt_rec ts_field_map_entries_def ts_field_map_groups_def ts_field_map_entries_1_def
        ts_field_map_entries_2_def ts_field_map_entries_3_def)
  then show "{1..FIELD_COUNT} \<subseteq> field_id ` set ts_field_map_entries"
    by (auto simp: list_all_iff simp del: upt_rec_numeral)
qed

end
