(* ===== verification/Dart_Language.thy ===== *)
theory Dart_Language
  imports Dart_Parse_Table Dart_Names Dart_Primary Dart_Counts
begin

text \<open>
  The language descriptor \<^verbatim>\<open>tree_sitter_dart\<close>, which hands the tables and functions of the grammar to
  the runtime, and the properties that need several of its parts: the counts it gives are those of
  the tables, and the two lexers find every token by its name.
\<close>

subsection \<open>The descriptor\<close>

text \<open>
  \<^verbatim>\<open>struct TSLanguage\<close>. The tables with designated initialisers are partial functions of the index, the
  two-dimensional parse table one of both indices.
\<close>

record 'p TSExternalScanner =
  states :: "bool list list"
  symbol_map :: "TSSymbol list"
  create :: payload
  destroy :: "payload \<Rightarrow> unit"
  scan :: "'p TSLexer_scheme TSLexer_ops \<Rightarrow> payload \<Rightarrow> 'p TSLexer_scheme \<Rightarrow> bool list
    \<Rightarrow> (bool \<times> 'p TSLexer_scheme) option"
  serialize :: "payload \<Rightarrow> 8 word list \<Rightarrow> 32 word \<times> 8 word list"
  deserialize :: "payload \<Rightarrow> 8 word list \<Rightarrow> 32 word \<Rightarrow> payload"

record 'p TSLanguage =
  version :: nat
  symbol_count :: nat
  alias_count :: nat
  token_count :: nat
  external_token_count :: nat
  state_count :: nat
  large_state_count :: nat
  production_id_count :: nat
  field_count :: nat
  max_alias_sequence_length :: nat
  parse_table :: "TSStateId \<Rightarrow> TSSymbol \<Rightarrow> nat option"
  small_parse_table :: "nat list"
  small_parse_table_map :: "nat \<rightharpoonup> nat"
  parse_actions :: "TSParseActionEntry list"
  symbol_names :: "TSSymbol \<rightharpoonup> string"
  field_names :: "string option list"
  field_map_slices :: "TSFieldMapSlice list"
  field_map_entries :: "TSFieldMapEntry list"
  symbol_metadata :: "TSSymbol \<rightharpoonup> TSSymbolMetadata"
  public_symbol_map :: "TSSymbol \<rightharpoonup> TSSymbol"
  alias_map :: "nat list"
  alias_sequences :: "TSSymbol list list"
  lex_modes :: "TSStateId \<rightharpoonup> TSLexMode"
  lex_fn :: "'p TSLexer_scheme TSLexer_ops \<Rightarrow> TSStateId \<Rightarrow> 'p TSLexer_scheme
    \<Rightarrow> (bool \<times> 'p TSLexer_scheme) option"
  keyword_lex_fn :: "'p TSLexer_scheme TSLexer_ops \<Rightarrow> TSStateId \<Rightarrow> 'p TSLexer_scheme
    \<Rightarrow> (bool \<times> 'p TSLexer_scheme) option"
  keyword_capture_token :: TSSymbol
  external_scanner :: "'p TSExternalScanner"
  primary_state_ids :: "TSStateId \<rightharpoonup> TSStateId"

definition tree_sitter_dart :: "'p TSLanguage" where
  "tree_sitter_dart = \<lparr>
     version = LANGUAGE_VERSION,
     symbol_count = SYMBOL_COUNT,
     alias_count = ALIAS_COUNT,
     token_count = TOKEN_COUNT,
     external_token_count = EXTERNAL_TOKEN_COUNT,
     state_count = STATE_COUNT,
     large_state_count = LARGE_STATE_COUNT,
     production_id_count = PRODUCTION_ID_COUNT,
     field_count = FIELD_COUNT,
     max_alias_sequence_length = MAX_ALIAS_SEQUENCE_LENGTH,
     parse_table = ts_parse_table,
     small_parse_table = ts_small_parse_table,
     small_parse_table_map = ts_small_parse_table_map,
     parse_actions = ts_parse_actions,
     symbol_names = ts_symbol_names,
     field_names = ts_field_names,
     field_map_slices = ts_field_map_slices,
     field_map_entries = ts_field_map_entries,
     symbol_metadata = ts_symbol_metadata,
     public_symbol_map = ts_symbol_map,
     alias_map = ts_non_terminal_alias_map,
     alias_sequences = ts_alias_sequences,
     lex_modes = ts_lex_modes,
     lex_fn = ts_lex,
     keyword_lex_fn = ts_lex_keywords,
     keyword_capture_token = sym_identifier,
     external_scanner = \<lparr>
       states = ts_external_scanner_states,
       symbol_map = ts_external_scanner_symbol_map,
       create = external_scanner_create,
       destroy = external_scanner_destroy,
       scan = external_scanner_scan,
       serialize = external_scanner_serialize,
       deserialize = external_scanner_deserialize\<rparr>,
     primary_state_ids = ts_primary_state_ids\<rparr>"

subsection \<open>Counts\<close>

lemma names_dom: "ts_symbol_names s \<noteq> None \<longleftrightarrow> s < SYMBOL_COUNT + ALIAS_COUNT"
  using map_of_upt_keys [OF ts_symbol_names_keys_all, of s] by (simp add: ts_symbol_names_def)

lemma metadata_dom: "ts_symbol_metadata s \<noteq> None \<longleftrightarrow> s < SYMBOL_COUNT + ALIAS_COUNT"
  using map_of_upt_keys [OF ts_symbol_metadata_keys_all, of s] by (simp add: ts_symbol_metadata_def)

lemma primary_dom: "ts_primary_state_ids s \<noteq> None \<longleftrightarrow> s < STATE_COUNT"
  using map_of_upt_keys [OF primary_keys_all, of s] by (simp add: ts_primary_state_ids_def)

text \<open>
  C23. The counts of the descriptor are those its tables show. The large parse table has a row for
  each of its states and the map of the small one an index for each of the others; names and metadata
  cover exactly the symbols and aliases, lexer modes and primary states exactly the states. The
  array of field names, whose length comes from its initialisers, has no name at 0 and a name for
  each field, and exactly these fields are given to children. The symbols that are reduced
  are exactly those from the number of tokens up to the number of symbols, the production ids of
  the reductions exactly those below their count, and the longest reduction has as many children as
  an alias row has columns. The external tokens are the last tokens of the grammar in the order of
  their indices.
\<close>

theorem language_counts:
  fixes lang :: "'p TSLanguage"
  assumes "lang = tree_sitter_dart"
  shows "(\<forall>s. (\<exists>y. parse_table lang s y \<noteq> None) \<longleftrightarrow> s < large_state_count lang) \<and>
    dom (small_parse_table_map lang) = {..<state_count lang - large_state_count lang} \<and>
    dom (symbol_names lang) = {..<symbol_count lang + alias_count lang} \<and>
    dom (symbol_metadata lang) = {..<symbol_count lang + alias_count lang} \<and>
    dom (lex_modes lang) = {..<state_count lang} \<and>
    dom (primary_state_ids lang) = {..<state_count lang} \<and>
    length (field_names lang) = Suc (field_count lang) \<and> field_names lang ! 0 = None \<and>
    (\<forall>f \<in> {1..field_count lang}. field_names lang ! f \<noteq> None) \<and>
    field_id ` set (field_map_entries lang) = {1..field_count lang} \<and>
    {y. \<exists>n d p. ACTION (REDUCE y n d p) \<in> set (parse_actions lang)} = {token_count lang..<symbol_count lang} \<and>
    {p. \<exists>y n d. ACTION (REDUCE y n d p) \<in> set (parse_actions lang)} = {..<production_id_count lang} \<and>
    Max {n. \<exists>y d p. ACTION (REDUCE y n d p) \<in> set (parse_actions lang)} = max_alias_sequence_length lang \<and>
    symbol_map (external_scanner lang) =
      [token_count lang - external_token_count lang..<token_count lang]"
proof -
  have "dom ts_symbol_names = {..<525}" "dom ts_symbol_metadata = {..<525}"
    "dom ts_primary_state_ids = {..<3577}" "dom ts_lex_modes = {..<3577}"
    "dom ts_small_parse_table_map = {..<3083}"
    using names_dom metadata_dom primary_dom lex_modes_dom small_map_dom by (auto simp: dom_def)
  moreover have "(\<exists>y. ts_parse_table s y \<noteq> None) \<longleftrightarrow> s < 494" for s
  proof
    assume "s < 494"
    then have "ts_parse_table s 0 \<noteq> None" using rows_dom [of s] by (auto simp: ts_parse_table_def)
    then show "\<exists>y. ts_parse_table s y \<noteq> None" by blast
  qed (use rows_dom [of s] in \<open>auto simp: ts_parse_table_def split: option.splits\<close>)
  moreover have "{y. \<exists>n d p. ACTION (REDUCE y n d p) \<in> set ts_parse_actions} = {163..<524}"
    "{p. \<exists>y n d. ACTION (REDUCE y n d p) \<in> set ts_parse_actions} = {..<98}"
    by (auto simp: symbol_reduced_iff production_reduced_iff)
  moreover have "Max {n. \<exists>y d p. ACTION (REDUCE y n d p) \<in> set ts_parse_actions} = 10"
  proof (rule Max_eqI)
    show "finite {n. \<exists>y d p. ACTION (REDUCE y n d p) \<in> set ts_parse_actions}"
      by (rule finite_subset [of _ "{..10}"]) (use reductions_bounds(4) in auto)
  qed (use reductions_bounds(4) longest_reduction in auto)
  moreover have "ts_field_names ! f \<noteq> None" if "f \<in> {1..20}" for f
    using that field_names_some(2) by simp
  ultimately show ?thesis
    using external_symbol_map_eq field_names_length field_names_all(2) fields_used
    by (simp add: assms tree_sitter_dart_def del: upt_rec_numeral)
qed

theorem language_counts_witness:
  "dom (lex_modes (tree_sitter_dart :: unit TSLanguage)) = {..<STATE_COUNT}"
  using language_counts [OF refl] by (simp add: tree_sitter_dart_def)

subsection \<open>The texts of the anonymous tokens\<close>

text \<open>
  A symbol with its own text as its name: the text is a reserved word of that symbol, or the main
  lexer knows it as a fixed text of that symbol.
\<close>

definition spelled :: "TSSymbol \<Rightarrow> string \<Rightarrow> bool" where
  "spelled s n \<longleftrightarrow> map_of dart_keywords n = Some s \<or> (n, s) \<in> set (map snd fixed_tokens)"

definition token_spelled :: "TSSymbol \<Rightarrow> TSSymbolMetadata \<Rightarrow> bool" where
  "token_spelled s md \<longleftrightarrow>
     (visible md \<and> \<not> named md \<longrightarrow>
       (case ts_symbol_names s of None \<Rightarrow> False | Some n \<Rightarrow> spelled s n))"

lemma spelled_all:
  "list_all (\<lambda>(n, s). spelled s n) dart_keywords"
  "list_all (\<lambda>(st, n, s). spelled s n) fixed_tokens"
  using map_of_all [of dart_keywords] by (force simp: list_all_iff spelled_def dart_keywords_distinct)+

lemmas spelled_eqs =
  spelled_all(1) [unfolded dart_keywords_def list.pred_inject prod.case]
  spelled_all(2) [unfolded fixed_tokens_def list.pred_inject prod.case]

lemma tokens_spelled:
  "list_all (\<lambda>(s, md). token_spelled s md) ts_symbol_metadata_1"
  "list_all (\<lambda>(s, md). token_spelled s md) ts_symbol_metadata_2"
  "list_all (\<lambda>(s, md). token_spelled s md) ts_symbol_metadata_3"
  "list_all (\<lambda>(s, md). token_spelled s md) ts_symbol_metadata_4"
  "list_all (\<lambda>(s, md). token_spelled s md) ts_symbol_metadata_5"
  "list_all (\<lambda>(s, md). token_spelled s md) ts_symbol_metadata_6"
  "list_all (\<lambda>(s, md). token_spelled s md) ts_symbol_metadata_7"
  "list_all (\<lambda>(s, md). token_spelled s md) ts_symbol_metadata_8"
  "list_all (\<lambda>(s, md). token_spelled s md) ts_symbol_metadata_9"
  "list_all (\<lambda>(s, md). token_spelled s md) ts_symbol_metadata_10"
  "list_all (\<lambda>(s, md). token_spelled s md) ts_symbol_metadata_11"
  "list_all (\<lambda>(s, md). token_spelled s md) ts_symbol_metadata_12"
  "list_all (\<lambda>(s, md). token_spelled s md) ts_symbol_metadata_13"
  "list_all (\<lambda>(s, md). token_spelled s md) ts_symbol_metadata_14"
  "list_all (\<lambda>(s, md). token_spelled s md) ts_symbol_metadata_15"
  by (simp_all add: token_spelled_def spelled_eqs
    ts_symbol_metadata_1_def ts_symbol_metadata_2_def ts_symbol_metadata_3_def ts_symbol_metadata_4_def
    ts_symbol_metadata_5_def ts_symbol_metadata_6_def ts_symbol_metadata_7_def ts_symbol_metadata_8_def
    ts_symbol_metadata_9_def ts_symbol_metadata_10_def ts_symbol_metadata_11_def ts_symbol_metadata_12_def
    ts_symbol_metadata_13_def ts_symbol_metadata_14_def ts_symbol_metadata_15_def)

text \<open>
  C16. Every anonymous token of the grammar, the visible symbols without a name of their own, is
  spelled as its name says: on the name alone either the keyword lexer or, from a state the parser
  uses, the main lexer returns this symbol and marks its end at the end of the input.
\<close>

theorem anonymous_tokens_spelled:
  assumes "tslexer ops valid rest start mark" and "valid l" and "start l = rest l"
    and "ts_symbol_metadata s = Some md" and "visible md" and "\<not> named md"
    and "ts_symbol_names s = Some n" and "rest l = codes n"
  shows "(\<exists>l'. ts_lex_keywords ops 0 l = Some (True, l') \<and> result_symbol l' = s \<and>
      start l' = codes n \<and> mark l' = Some []) \<or>
    (\<exists>st \<in> set mode_states. \<exists>l'. ts_lex ops st l = Some (True, l') \<and> result_symbol l' = s \<and>
      start l' = codes n \<and> mark l' = Some [])"
proof -
  have "list_all (\<lambda>(s, md). token_spelled s md) ts_symbol_metadata_table"
    by (simp add: ts_symbol_metadata_table_def tokens_spelled)
  from map_of_list_all [OF this, of s md] assms(4-7) have "spelled s n"
    by (simp add: ts_symbol_metadata_def token_spelled_def)
  then consider "map_of dart_keywords n = Some s" | st where "(st, n, s) \<in> set fixed_tokens"
    by (auto simp: spelled_def)
  then show ?thesis
  proof cases
    case 1
    from ts_lex_keywords_self [OF assms(1-3) this assms(8)] show ?thesis by blast
  next
    case 2
    from fixed_token_self [OF assms(1-3) this assms(8)] show ?thesis by blast
  qed
qed

theorem anonymous_tokens_spelled_witness:
  "\<exists>l'. result_symbol l' = anon_sym_while \<and> buf_from l' = codes ''while'' \<and> buf_mark l' = Some [] \<and>
    (ts_lex_keywords buf_ops 0 (buf_init (codes ''while'')) = Some (True, l') \<or>
     (\<exists>st \<in> set mode_states. ts_lex buf_ops st (buf_init (codes ''while'')) = Some (True, l')))"
proof -
  let ?l = "buf_init (codes ''while'')"
  have l: "buf_from ?l = buf_rest ?l" "buf_rest ?l = codes ''while''" by simp_all
  have md: "ts_symbol_metadata anon_sym_while = Some (MD True False False)"
    "visible (MD True False False)" "\<not> named (MD True False False)"
    "ts_symbol_names anon_sym_while = Some ''while''" by simp_all
  from anonymous_tokens_spelled [OF buf.tslexer_axioms buf_init_simps(1) l(1) md l(2)] show ?thesis
    by blast
qed

end
