(* ===== verification/Char_Set.thy ===== *)
theory Char_Set
  imports Prelude
begin

text \<open>
  \<^verbatim>\<open>set_contains\<close> of \<^verbatim>\<open>tree_sitter/parser.h\<close>: membership of a code point in a sorted array of ranges,
  by binary search on 32-bit indices. The array is a list; a read outside it is \<open>None\<close>.
\<close>

subsection \<open>The search\<close>

record TSCharacterRange =
  range_start :: code_point
  range_end :: code_point

definition in_range :: "TSCharacterRange \<Rightarrow> code_point \<Rightarrow> bool" where
  "in_range r lookahead \<longleftrightarrow> lookahead \<ge> range_start r \<and> lookahead \<le> range_end r"

definition range_at :: "TSCharacterRange list \<Rightarrow> 32 word \<Rightarrow> TSCharacterRange option" where
  "range_at ranges i = (if unat i < length ranges then Some (ranges ! unat i) else None)"

function contains_loop :: "TSCharacterRange list \<Rightarrow> code_point \<Rightarrow> 32 word \<Rightarrow> 32 word \<Rightarrow> bool option" where
  "contains_loop ranges lookahead index n =
     (if n > 1 then
        (let half_size = n div 2; mid_index = index + half_size in
         case range_at ranges mid_index of
           None \<Rightarrow> None
         | Some r \<Rightarrow>
             if in_range r lookahead then Some True
             else contains_loop ranges lookahead
               (if lookahead > range_end r then mid_index else index) (n - half_size))
      else
        (case range_at ranges index of
           None \<Rightarrow> None
         | Some r \<Rightarrow> Some (in_range r lookahead)))"
  by pat_completeness auto
termination
  by (relation "measure (\<lambda>(_, _, _, n). unat n)") (auto intro: half_less)

definition set_contains :: "TSCharacterRange list \<Rightarrow> 32 word \<Rightarrow> code_point \<Rightarrow> bool option" where
  "set_contains ranges len lookahead = contains_loop ranges lookahead 0 (len - 0)"

subsection \<open>The search finds what is there\<close>

text \<open>The ranges are in ascending order and do not overlap.\<close>

definition ranges_sorted :: "TSCharacterRange list \<Rightarrow> bool" where
  "ranges_sorted rs \<longleftrightarrow> sorted_wrt (\<lambda>r r'. range_end r < range_start r') rs \<and>
     list_all (\<lambda>r. range_start r \<le> range_end r) rs"

lemma ranges_sorted_less:
  "ranges_sorted rs \<Longrightarrow> i < j \<Longrightarrow> j < length rs \<Longrightarrow> range_end (rs ! i) < range_start (rs ! j)"
  by (auto simp: ranges_sorted_def dest: sorted_wrt_nth_less)

lemma ranges_sorted_le: "ranges_sorted rs \<Longrightarrow> i < length rs \<Longrightarrow> range_start (rs ! i) \<le> range_end (rs ! i)"
  by (simp add: ranges_sorted_def list_all_length)

text \<open>Where a range with the code point can be, seen from another range.\<close>

lemma in_range_side:
  assumes "ranges_sorted rs" and "j < length rs" and "m < length rs" and "in_range (rs ! j) c"
    and "\<not> in_range (rs ! m) c"
  shows "if c > range_end (rs ! m) then m < j else j < m"
proof -
  have "m \<noteq> j" using assms(4,5) by auto
  then consider "m < j" | "j < m" by linarith
  then show ?thesis
  proof cases
    case 1
    then show ?thesis
      using ranges_sorted_less [OF assms(1), of m j] assms(2,4) by (simp add: in_range_def)
  next
    case 2
    then show ?thesis
      using ranges_sorted_less [OF assms(1), of j m] ranges_sorted_le [OF assms(1,3)] assms(3,4)
      by (simp add: in_range_def)
  qed
qed

definition found :: "TSCharacterRange list \<Rightarrow> code_point \<Rightarrow> nat \<Rightarrow> nat \<Rightarrow> bool" where
  "found rs c i j \<longleftrightarrow> (\<exists>k. i \<le> k \<and> k < j \<and> in_range (rs ! k) c)"

lemma found_mono: "found rs c i' j' \<Longrightarrow> i \<le> i' \<Longrightarrow> j' \<le> j \<Longrightarrow> found rs c i j"
  unfolding found_def by (meson order.trans less_le_trans)

lemma contains_loop_found:
  assumes "ranges_sorted rs" and "length rs < 2 ^ 32" and "0 < unat n"
    and "unat i + unat n \<le> length rs"
  shows "contains_loop rs c i n = Some (found rs c (unat i) (unat i + unat n))"
  using assms(3,4)
proof (induction n arbitrary: i rule: measure_induct_rule [of unat])
  case (less n)
  show ?case
  proof (cases "n > 1")
    case False
    then have n: "unat n = 1" using less.prems by (simp add: word_less_nat_alt)
    then have "range_at rs i = Some (rs ! unat i)" using less.prems by (simp add: range_at_def)
    moreover have "found rs c (unat i) (unat i + unat n) = in_range (rs ! unat i) c"
      by (auto simp: found_def n less_Suc_eq_le dest: antisym)
    ultimately show ?thesis using False by simp
  next
    case True
    let ?h = "n div 2" and ?m = "i + n div 2"
    have n: "1 < unat n" using True by (simp add: word_less_nat_alt)
    have h: "unat ?h = unat n div 2" "unat (n - ?h) = unat n - unat n div 2"
      by (simp_all add: unat_half)
    have m: "unat ?m = unat i + unat n div 2"
      using less.prems assms(2) by (simp add: unat_word_ariths unat_div)
    define k where "k = unat i + unat n div 2"
    have k: "unat ?m = k" "k < length rs" "k < unat i + unat n" using m n less.prems by (auto simp: k_def)
    have at: "range_at rs ?m = Some (rs ! k)" using k by (simp add: range_at_def)
    show ?thesis
    proof (cases "in_range (rs ! k) c")
      case True
      then have "found rs c (unat i) (unat i + unat n)" using k by (auto simp: found_def k_def intro!: exI [of _ k])
      with \<open>n > 1\<close> at True show ?thesis by (subst contains_loop.simps) (simp add: Let_def)
    next
      case False
      let ?i = "if c > range_end (rs ! k) then ?m else i"
      have step: "contains_loop rs c i n = contains_loop rs c ?i (n - ?h)"
        using \<open>n > 1\<close> at False by (subst contains_loop.simps) (simp add: Let_def)
      have "unat ?i + unat (n - ?h) \<le> length rs" "0 < unat (n - ?h)" "unat (n - ?h) < unat n"
        using n less.prems(2) k(1) by (auto simp: h k_def)
      note IH = less.IH [OF this(3,2,1)]
      have "found rs c (unat ?i) (unat ?i + unat (n - ?h)) \<longleftrightarrow> found rs c (unat i) (unat i + unat n)"
      proof
        assume "found rs c (unat ?i) (unat ?i + unat (n - ?h))"
        then show "found rs c (unat i) (unat i + unat n)"
          by (rule found_mono) (use n k(1) in \<open>auto simp: h k_def\<close>)
      next
        assume "found rs c (unat i) (unat i + unat n)"
        then obtain j where j: "unat i \<le> j" "j < unat i + unat n" "in_range (rs ! j) c"
          by (auto simp: found_def)
        with in_range_side [OF assms(1) _ k(2) _ False] less.prems(2)
        have "if c > range_end (rs ! k) then k < j else j < k" by simp
        with j n k(1) show "found rs c (unat ?i) (unat ?i + unat (n - ?h))"
          by (auto simp: found_def h k_def intro!: exI [of _ j] split: if_splits)
      qed
      with step IH show ?thesis by simp
    qed
  qed
qed

text \<open>
  C31. On a non-empty sorted array of disjoint ranges, whose length is the one passed, the binary
  search never reads outside the array and tells exactly whether some range contains the code point.
\<close>

theorem set_contains_correct:
  assumes "ranges_sorted rs" and "rs \<noteq> []" and "length rs < 2 ^ 32"
  shows "set_contains rs (of_nat (length rs)) c = Some (\<exists>r \<in> set rs. in_range r c)"
proof -
  have "unat (of_nat (length rs) :: 32 word) = length rs"
    using assms(3) by (simp add: unat_of_nat)
  moreover have "found rs c 0 (length rs) \<longleftrightarrow> (\<exists>r \<in> set rs. in_range r c)"
    by (auto simp: found_def in_set_conv_nth Bex_def)
  ultimately show ?thesis
    using contains_loop_found [OF assms(1,3), of "of_nat (length rs)" 0 c] assms(2)
    by (simp add: set_contains_def del: contains_loop.simps)
qed

theorem set_contains_correct_witness:
  "set_contains [\<lparr>range_start = 36, range_end = 36\<rparr>, \<lparr>range_start = 65, range_end = 90\<rparr>,
     \<lparr>range_start = 95, range_end = 95\<rparr>, \<lparr>range_start = 97, range_end = 122\<rparr>] 4 70 = Some True"
  using set_contains_correct [of "[\<lparr>range_start = 36, range_end = 36\<rparr>, \<lparr>range_start = 65, range_end = 90\<rparr>,
     \<lparr>range_start = 95, range_end = 95\<rparr>, \<lparr>range_start = 97, range_end = 122\<rparr>]" 70]
  by (simp add: ranges_sorted_def in_range_def del: contains_loop.simps)

text \<open>
  With length 0 the search reads the first element all the same: on an empty array it is a read
  outside the array, whatever the code point.
\<close>

theorem set_contains_empty: "set_contains [] 0 c = None"
  by (simp add: set_contains_def range_at_def)

end
