(* ===== verification/TS_Array.thy ===== *)
theory TS_Array
  imports Prelude
begin

text \<open>
  The growable array of \<^verbatim>\<open>tree_sitter/array.h\<close>. Sizes, capacities and indices are 32-bit words and
  wrap around as in C; the memory a \<^verbatim>\<open>contents\<close> pointer points to is a list of cells, \<open>None\<close> for a
  cell that is not initialised, and offsets count elements (the byte offsets of the code are these
  times \<^verbatim>\<open>element_size\<close>, computed in \<^verbatim>\<open>size_t\<close>). A failed \<^verbatim>\<open>assert\<close>, an access through \<^verbatim>\<open>NULL\<close>,
  outside the block or to a cell that is not initialised, and a signed overflow are errors.
  The allocator (\<^verbatim>\<open>ts_malloc\<close>, \<^verbatim>\<open>ts_realloc\<close> of \<^verbatim>\<open>alloc.h\<close>) is a parameter.
\<close>

subsection \<open>Memory\<close>

datatype array_error =
  Assertion_Failed | Null_Pointer | Out_Of_Bounds | Uninitialised | Signed_Overflow

type_synonym 'a result = "array_error + 'a"
type_synonym 'a cells = "'a option list"

definition bind_result :: "'a result \<Rightarrow> ('a \<Rightarrow> 'b result) \<Rightarrow> 'b result" where
  "bind_result r f = (case r of Inl e \<Rightarrow> Inl e | Inr x \<Rightarrow> f x)"

lemma bind_result_simps [simp]: "bind_result (Inl e) f = Inl e" "bind_result (Inr x) f = f x"
  by (simp_all add: bind_result_def)

text \<open>Reading one element, reading a run of cells, writing a run of cells, \<^verbatim>\<open>memmove\<close>.\<close>

definition mem_get :: "'a cells option \<Rightarrow> nat \<Rightarrow> 'a result" where
  "mem_get p i =
     (case p of
        None \<Rightarrow> Inl Null_Pointer
      | Some b \<Rightarrow>
          if i < length b then (case b ! i of None \<Rightarrow> Inl Uninitialised | Some x \<Rightarrow> Inr x)
          else Inl Out_Of_Bounds)"

definition mem_read :: "'a cells option \<Rightarrow> nat \<Rightarrow> nat \<Rightarrow> 'a cells result" where
  "mem_read p i n =
     (if n = 0 then Inr []
      else case p of
        None \<Rightarrow> Inl Null_Pointer
      | Some b \<Rightarrow> if i + n \<le> length b then Inr (take n (drop i b)) else Inl Out_Of_Bounds)"

definition mem_write :: "'a cells option \<Rightarrow> nat \<Rightarrow> 'a cells \<Rightarrow> 'a cells option result" where
  "mem_write p i xs =
     (if xs = [] then Inr p
      else case p of
        None \<Rightarrow> Inl Null_Pointer
      | Some b \<Rightarrow>
          if i + length xs \<le> length b then Inr (Some (take i b @ xs @ drop (i + length xs) b))
          else Inl Out_Of_Bounds)"

definition memmove :: "'a cells option \<Rightarrow> nat \<Rightarrow> nat \<Rightarrow> nat \<Rightarrow> 'a cells option result" where
  "memmove p dst src n = bind_result (mem_read p src n) (mem_write p dst)"

text \<open>
  The allocator: a block of the number of cells asked for, or \<^verbatim>\<open>NULL\<close>. Freed memory is not modelled:
  after \<^verbatim>\<open>ts_free\<close> or \<^verbatim>\<open>ts_realloc\<close> the old pointer is gone from the array.
\<close>

record 'a allocator =
  ts_malloc :: "nat \<Rightarrow> 'a cells option"
  ts_realloc :: "'a cells \<Rightarrow> nat \<Rightarrow> 'a cells option"

subsection \<open>The operations\<close>

record 'a Array =
  contents :: "'a cells option"
  array_size :: "32 word"
  capacity :: "32 word"

definition array_init :: "'a Array \<Rightarrow> 'a Array" where
  "array_init self = self\<lparr>array_size := 0, capacity := 0, contents := None\<rparr>"

definition array_new :: "'a Array" where
  "array_new = \<lparr>contents = None, array_size = 0, capacity = 0\<rparr>"

definition array_get :: "'a Array \<Rightarrow> 32 word \<Rightarrow> 'a result" where
  "array_get self index =
     (if index < array_size self then mem_get (contents self) (unat index) else Inl Assertion_Failed)"

definition array_front :: "'a Array \<Rightarrow> 'a result" where
  "array_front self = array_get self 0"

definition array_back :: "'a Array \<Rightarrow> 'a result" where
  "array_back self = array_get self (array_size self - 1)"

definition array_clear :: "'a Array \<Rightarrow> 'a Array" where
  "array_clear self = self\<lparr>array_size := 0\<rparr>"

definition array__delete :: "'a Array \<Rightarrow> 'a Array" where
  "array__delete self =
     (if contents self \<noteq> None then self\<lparr>contents := None, array_size := 0, capacity := 0\<rparr> else self)"

definition array__reserve :: "'a allocator \<Rightarrow> 'a Array \<Rightarrow> 32 word \<Rightarrow> 'a Array" where
  "array__reserve al self new_capacity =
     (if new_capacity > capacity self then
        self\<lparr>contents :=
               (case contents self of
                  Some b \<Rightarrow> ts_realloc al b (unat new_capacity)
                | None \<Rightarrow> ts_malloc al (unat new_capacity)),
             capacity := new_capacity\<rparr>
      else self)"

definition array__erase :: "'a Array \<Rightarrow> 32 word \<Rightarrow> 'a Array result" where
  "array__erase self index =
     (if index < array_size self then
        bind_result
          (memmove (contents self) (unat index) (unat (index + 1)) (unat (array_size self - index - 1)))
          (\<lambda>p. Inr (self\<lparr>contents := p, array_size := array_size self - 1\<rparr>))
      else Inl Assertion_Failed)"

definition array__assign :: "'a allocator \<Rightarrow> 'a Array \<Rightarrow> 'a Array \<Rightarrow> 'a Array result" where
  "array__assign al self other =
     (let self = (array__reserve al self (array_size other))\<lparr>array_size := array_size other\<rparr> in
      bind_result (mem_read (contents other) 0 (unat (array_size self))) (\<lambda>xs.
      bind_result (mem_write (contents self) 0 xs) (\<lambda>p. Inr (self\<lparr>contents := p\<rparr>))))"

definition array__swap :: "'a Array \<Rightarrow> 'a Array \<Rightarrow> 'a Array \<times> 'a Array" where
  "array__swap self other = (let swap = other; other = self; self = swap in (self, other))"

definition array__grow :: "'a allocator \<Rightarrow> 'a Array \<Rightarrow> 32 word \<Rightarrow> 'a Array" where
  "array__grow al self count =
     (let new_size = array_size self + count in
      if new_size > capacity self then
        (let new_capacity = capacity self * 2;
             new_capacity = (if new_capacity < 8 then 8 else new_capacity);
             new_capacity = (if new_capacity < new_size then new_size else new_capacity)
         in array__reserve al self new_capacity)
      else self)"

text \<open>\<^verbatim>\<open>elements\<close> may be \<^verbatim>\<open>NULL\<close> (\<open>None\<close>): the new elements are then zero, the parameter \<open>zero\<close>.\<close>

definition array__splice ::
  "'a allocator \<Rightarrow> 'a \<Rightarrow> 'a Array \<Rightarrow> 32 word \<Rightarrow> 32 word \<Rightarrow> 32 word \<Rightarrow> 'a list option \<Rightarrow> 'a Array result" where
  "array__splice al zero self index old_count new_count elements =
     (let new_size = array_size self + new_count - old_count;
          old_end = index + old_count;
          new_end = index + new_count in
      if old_end \<le> array_size self then
        (let self = array__reserve al self new_size in
         bind_result
           (if array_size self > old_end
            then memmove (contents self) (unat new_end) (unat old_end) (unat (array_size self - old_end))
            else Inr (contents self)) (\<lambda>p.
         bind_result
           (if new_count > 0 then
              (case elements of
                 Some es \<Rightarrow>
                   if unat new_count \<le> length es
                   then mem_write p (unat index) (map Some (take (unat new_count) es))
                   else Inl Out_Of_Bounds
               | None \<Rightarrow> mem_write p (unat index) (replicate (unat new_count) (Some zero)))
            else Inr p) (\<lambda>p.
         Inr (self\<lparr>contents := p, array_size := array_size self + (new_count - old_count)\<rparr>))))
      else Inl Assertion_Failed)"

definition array_push :: "'a allocator \<Rightarrow> 'a Array \<Rightarrow> 'a \<Rightarrow> 'a Array result" where
  "array_push al self element =
     (let self = array__grow al self 1 in
      bind_result (mem_write (contents self) (unat (array_size self)) [Some element]) (\<lambda>p.
      Inr (self\<lparr>contents := p, array_size := array_size self + 1\<rparr>)))"

definition array_grow_by :: "'a allocator \<Rightarrow> 'a \<Rightarrow> 'a Array \<Rightarrow> 32 word \<Rightarrow> 'a Array result" where
  "array_grow_by al zero self count =
     (if count = 0 then Inr self
      else
        (let self = array__grow al self count in
         bind_result (mem_write (contents self) (unat (array_size self))
           (replicate (unat count) (Some zero))) (\<lambda>p.
         Inr (self\<lparr>contents := p, array_size := array_size self + count\<rparr>))))"

definition array_extend :: "'a allocator \<Rightarrow> 'a \<Rightarrow> 'a Array \<Rightarrow> 32 word \<Rightarrow> 'a list option \<Rightarrow> 'a Array result" where
  "array_extend al zero self count elements =
     array__splice al zero self (array_size self) 0 count elements"

definition array_insert :: "'a allocator \<Rightarrow> 'a \<Rightarrow> 'a Array \<Rightarrow> 32 word \<Rightarrow> 'a \<Rightarrow> 'a Array result" where
  "array_insert al zero self index element = array__splice al zero self index 0 1 (Some [element])"

definition array_pop :: "'a Array \<Rightarrow> ('a \<times> 'a Array) result" where
  "array_pop self =
     (let self = self\<lparr>array_size := array_size self - 1\<rparr> in
      bind_result (mem_get (contents self) (unat (array_size self))) (\<lambda>x. Inr (x, self)))"

text \<open>
  The binary search. \<^verbatim>\<open>compare\<close> is the callback. \<^verbatim>\<open>_compare_int\<close> converts both operands, values of any
  integer type, to \<^verbatim>\<open>int\<close>, which keeps their low 32 bits, and subtracts the results.
\<close>

definition to_int :: "int \<Rightarrow> int" where
  "to_int a = sint (word_of_int a :: 32 word)"

definition compare_int :: "int \<Rightarrow> int \<Rightarrow> int result" where
  "compare_int a b =
     (let d = to_int a - to_int b in
      if - (2 ^ 31) \<le> d \<and> d < 2 ^ 31 then Inr d else Inl Signed_Overflow)"

function search_loop ::
  "('a \<Rightarrow> 'n \<Rightarrow> int result) \<Rightarrow> 'a Array \<Rightarrow> 'n \<Rightarrow> 32 word \<Rightarrow> 32 word \<Rightarrow> 32 word result" where
  "search_loop compare self needle index n =
     (if n > 1 then
        (let half_size = n div 2; mid_index = index + half_size in
         case bind_result (mem_get (contents self) (unat mid_index)) (\<lambda>x. compare x needle) of
           Inl e \<Rightarrow> Inl e
         | Inr comparison \<Rightarrow>
             search_loop compare self needle (if comparison \<le> 0 then mid_index else index) (n - half_size))
      else Inr index)"
  by pat_completeness auto
termination
  by (relation "measure (\<lambda>(_, _, _, _, n). unat n)") (auto intro: half_less)

definition array__search_sorted ::
  "('a \<Rightarrow> 'n \<Rightarrow> int result) \<Rightarrow> 'a Array \<Rightarrow> 32 word \<Rightarrow> 'n \<Rightarrow> (32 word \<times> bool) result" where
  "array__search_sorted compare self start needle =
     (let n = array_size self - start in
      if n = 0 then Inr (start, False)
      else
        bind_result (search_loop compare self needle start n) (\<lambda>index.
        bind_result (bind_result (mem_get (contents self) (unat index)) (\<lambda>x. compare x needle)) (\<lambda>comparison.
        Inr (if comparison = 0 then (index, True)
             else if comparison < 0 then (index + 1, False)
             else (index, False)))))"

definition array_search_sorted_with ::
  "('a \<Rightarrow> 'n \<Rightarrow> int result) \<Rightarrow> 'a Array \<Rightarrow> 'n \<Rightarrow> (32 word \<times> bool) result" where
  "array_search_sorted_with compare self needle = array__search_sorted compare self 0 needle"

definition array_search_sorted_by ::
  "('a \<Rightarrow> int) \<Rightarrow> 'a Array \<Rightarrow> int \<Rightarrow> (32 word \<times> bool) result" where
  "array_search_sorted_by field self needle =
     array__search_sorted (\<lambda>x. compare_int (field x)) self 0 needle"

definition array_insert_sorted_with ::
  "'a allocator \<Rightarrow> 'a \<Rightarrow> ('a \<Rightarrow> 'a \<Rightarrow> int result) \<Rightarrow> 'a Array \<Rightarrow> 'a \<Rightarrow> 'a Array result" where
  "array_insert_sorted_with al zero compare self v =
     bind_result (array_search_sorted_with compare self v) (\<lambda>(index, exists).
     if \<not> exists then array_insert al zero self index v else Inr self)"

definition array_insert_sorted_by ::
  "'a allocator \<Rightarrow> 'a \<Rightarrow> ('a \<Rightarrow> int) \<Rightarrow> 'a Array \<Rightarrow> 'a \<Rightarrow> 'a Array result" where
  "array_insert_sorted_by al zero field self v =
     bind_result (array_search_sorted_by field self (field v)) (\<lambda>(index, exists).
     if \<not> exists then array_insert al zero self index v else Inr self)"

text \<open>\<^verbatim>\<open>array_push_all\<close> reads the elements of the other array through its pointer.\<close>

definition array_push_all :: "'a allocator \<Rightarrow> 'a \<Rightarrow> 'a Array \<Rightarrow> 'a Array \<Rightarrow> 'a Array result" where
  "array_push_all al zero self other =
     array_extend al zero self (array_size other)
       (map_option (\<lambda>b. map the (takeWhile (\<lambda>c. c \<noteq> None) b)) (contents other))"

subsection \<open>What an array represents\<close>

text \<open>
  \<open>array_rep self xs\<close>: the array is well formed and holds the elements \<open>xs\<close>. The block has as many
  cells as the capacity says, the first \<^verbatim>\<open>size\<close> of them are initialised.
\<close>

definition array_rep :: "'a Array \<Rightarrow> 'a list \<Rightarrow> bool" where
  "array_rep self xs \<longleftrightarrow> unat (array_size self) = length xs \<and>
     (case contents self of
        None \<Rightarrow> capacity self = 0 \<and> xs = []
      | Some b \<Rightarrow> length b = unat (capacity self) \<and> length xs \<le> length b \<and>
          take (length xs) b = map Some xs)"

lemma array_rep_size: "array_rep self xs \<Longrightarrow> unat (array_size self) = length xs"
  by (simp add: array_rep_def)

lemma array_rep_length: "array_rep self xs \<Longrightarrow> length xs < 2 ^ 32"
  using unat_less_32 [of "array_size self"] by (simp add: array_rep_def)

lemma array_repI:
  assumes "contents self = Some b" and "length b = unat (capacity self)"
    and "length xs = unat (array_size self)" and "length xs \<le> length b"
    and "take (unat (array_size self)) b = map Some xs"
  shows "array_rep self xs"
  using assms by (simp add: array_rep_def)

lemma array_rep_new: "array_rep array_new []"
  by (simp add: array_rep_def array_new_def)

lemma mem_get_rep: "array_rep self xs \<Longrightarrow> i < length xs \<Longrightarrow> mem_get (contents self) i = Inr (xs ! i)"
proof -
  assume r: "array_rep self xs" and i: "i < length xs"
  then obtain b where b: "contents self = Some b" "length xs \<le> length b" "take (length xs) b = map Some xs"
    by (auto simp: array_rep_def split: option.splits)
  have "b ! i = take (length xs) b ! i" using i by simp
  with b i show ?thesis by (simp add: mem_get_def)
qed

lemma reserve_size [simp]: "array_size (array__reserve al self n) = array_size self"
  by (simp add: array__reserve_def)

text \<open>The effect of writing a run of cells into a block.\<close>

lemma mem_write_Some:
  assumes "i + length ys \<le> length b"
  obtains b' where "mem_write (Some b) i ys = Inr (Some b')" and "length b' = length b"
    and "b' = take i b @ ys @ drop (i + length ys) b"
  using assms by (cases "ys = []") (auto simp: mem_write_def)

lemma mem_write_front:
  assumes "take n b = map Some xs" and "n = length xs" and "n + length ys \<le> length b"
  obtains b' where "mem_write (Some b) n (map Some ys) = Inr (Some b')" and "length b' = length b"
    and "take (n + length ys) b' = map Some (xs @ ys)"
proof -
  from mem_write_Some [of n "map Some ys" b] assms(3) obtain b' where
    "mem_write (Some b) n (map Some ys) = Inr (Some b')" "length b' = length b"
    "b' = take n b @ map Some ys @ drop (n + length ys) b" by auto
  with that [of b'] assms show thesis by simp
qed

text \<open>The two writes of a splice on a block that is large enough.\<close>

lemma splice_block:
  assumes "take (length xs) b = map Some xs" and "length xs \<le> length b" and "i + oc \<le> length xs"
    and "length xs - oc + length ys \<le> length b"
  obtains b1 b2 where "memmove (Some b) (i + length ys) (i + oc) (length xs - (i + oc)) = Inr (Some b1)"
    and "mem_write (Some b1) i (map Some ys) = Inr (Some b2)" and "length b2 = length b"
    and "take (length xs - oc + length ys) b2 = map Some (take i xs @ ys @ drop (i + oc) xs)"
proof -
  let ?t = "map Some (drop (i + oc) xs)" and ?n = "length xs - (i + oc)"
  have "take ?n (drop (i + oc) b) = drop (i + oc) (take (length xs) b)"
    by (simp add: drop_take)
  then have rd: "mem_read (Some b) (i + oc) ?n = Inr ?t"
    using assms(1-3) by (auto simp: mem_read_def drop_map)
  have "i + length ys + length ?t \<le> length b" using assms(3,4) by simp
  from mem_write_Some [OF this] obtain b1 where b1: "mem_write (Some b) (i + length ys) ?t = Inr (Some b1)"
    "length b1 = length b" "b1 = take (i + length ys) b @ ?t @ drop (i + length ys + length ?t) b" by blast
  have "i + length (map Some ys) \<le> length b1" using b1(2) assms(3,4) by simp
  from mem_write_Some [OF this] obtain b2 where b2: "mem_write (Some b1) i (map Some ys) = Inr (Some b2)"
    "length b2 = length b1" "b2 = take i b1 @ map Some ys @ drop (i + length ys) b1" by auto
  have "take i b = take i (take (length xs) b)" using assms(3) by simp
  then have i: "take i b1 = map Some (take i xs)"
    using assms by (simp add: b1(3) take_map min_def)
  have "drop (i + length ys) b1 = ?t @ drop (i + length ys + length ?t) b"
    using assms(3,4) by (simp add: b1(3))
  moreover define zs where "zs = take i xs @ ys @ drop (i + oc) xs"
  ultimately have "b2 = map Some zs @ drop (i + length ys + length ?t) b"
    by (simp add: b2(3) i)
  moreover have "length zs = length xs - oc + length ys"
    using assms(3) by (simp add: zs_def)
  ultimately have "take (length xs - oc + length ys) b2 = map Some zs" by simp
  then have "take (length xs - oc + length ys) b2 = map Some (take i xs @ ys @ drop (i + oc) xs)"
    by (simp only: zs_def)
  moreover have "memmove (Some b) (i + length ys) (i + oc) ?n = Inr (Some b1)"
    by (simp only: memmove_def rd bind_result_simps b1(1))
  moreover have "length b2 = length b" using b1(2) b2(2) by (rule trans [rotated])
  ultimately show thesis using that b2(1) by blast
qed

subsection \<open>Allocators\<close>

text \<open>
  The documented behaviour of \<^verbatim>\<open>malloc\<close> and \<^verbatim>\<open>realloc\<close>: a block of the size asked for, the contents
  kept up to the smaller size, or \<^verbatim>\<open>NULL\<close>. A total allocator never runs out of memory.
\<close>

locale c_allocator =
  fixes al :: "'a allocator"
  assumes malloc_length: "ts_malloc al n = Some b \<Longrightarrow> length b = n"
    and realloc_length: "ts_realloc al b n = Some b' \<Longrightarrow> length b' = n"
    and realloc_keeps: "ts_realloc al b n = Some b' \<Longrightarrow> length b \<le> n \<Longrightarrow> take (length b) b' = b"

locale total_allocator = c_allocator +
  assumes malloc_total: "ts_malloc al n \<noteq> None"
    and realloc_total: "ts_realloc al b n \<noteq> None"
begin

lemma reserve_capacity: "n \<le> capacity (array__reserve al self n)"
  by (auto simp: array__reserve_def)

lemma reserve_rep:
  assumes "array_rep self xs"
  shows "array_rep (array__reserve al self n) xs"
proof (cases "n > capacity self")
  case False
  with assms show ?thesis by (simp add: array__reserve_def)
next
  case True
  show ?thesis
  proof (cases "contents self")
    case None
    from malloc_total obtain b where b: "ts_malloc al (unat n) = Some b" by blast
    with True None assms malloc_length [OF b] show ?thesis
      by (simp add: array_rep_def array__reserve_def)
  next
    case (Some b)
    from realloc_total obtain b' where b': "ts_realloc al b (unat n) = Some b'" by blast
    from Some assms have xs: "length b = unat (capacity self)" "length xs \<le> length b"
      "take (length xs) b = map Some xs" by (simp_all add: array_rep_def)
    have le: "length b \<le> unat n" using True xs(1) by (simp add: word_less_nat_alt)
    have "take (length xs) b' = take (length xs) (take (length b) b')" using xs(2) by simp
    with xs realloc_keeps [OF b' le] realloc_length [OF b'] True Some b' le assms show ?thesis
      by (simp add: array_rep_def array__reserve_def)
  qed
qed

text \<open>After a reservation of more than nothing there is a block to write to.\<close>

lemma reserve_block:
  assumes "array_rep self xs" and "0 < n"
  obtains b where "contents (array__reserve al self n) = Some b"
    and "length b = unat (capacity (array__reserve al self n))"
    and "unat n \<le> length b" and "take (length xs) b = map Some xs"
proof -
  have "array_rep (array__reserve al self n) xs" by (rule reserve_rep [OF assms(1)])
  moreover have "capacity (array__reserve al self n) \<noteq> 0"
    using reserve_capacity [of n self] assms(2) by auto
  ultimately show thesis
    using that reserve_capacity [of n self]
    by (auto simp: array_rep_def word_le_nat_alt split: option.splits)
qed

subsection \<open>Growing\<close>

text \<open>
  The new capacity is large enough for the new size even where doubling wraps around, as long as
  the size itself fits in 32 bits.
\<close>

lemma grow_reserve:
  assumes "array_rep self xs" and "length xs + unat count < 2 ^ 32" and "0 < count"
  obtains n where "unat n \<ge> length xs + unat count" and "0 < n"
    and "array__grow al self count = array__reserve al self n \<or>
         array__grow al self count = self \<and> n \<le> capacity self"
proof -
  have sz: "unat (array_size self + count) = length xs + unat count"
    using assms(2) array_rep_size [OF assms(1)] by (simp add: unat_add32)
  have pos: "0 < array_size self + count"
    using sz assms(3) by (simp add: word_less_nat_alt)
  show thesis
  proof (cases "array_size self + count > capacity self")
    case False
    with that [of "array_size self + count"] sz pos show thesis by (simp add: array__grow_def not_less)
  next
    case True
    define n where "n = (let c = capacity self * 2; c = (if c < 8 then 8 else c) in
      if c < array_size self + count then array_size self + count else c)"
    have le: "array_size self + count \<le> n" by (auto simp: n_def Let_def)
    show thesis
    proof (rule that)
      show "unat n \<ge> length xs + unat count" using le sz by (simp add: word_le_nat_alt)
      show "0 < n" using pos le by (rule less_le_trans)
      show "array__grow al self count = array__reserve al self n \<or>
          array__grow al self count = self \<and> n \<le> capacity self"
        using True by (simp add: array__grow_def n_def Let_def)
    qed
  qed
qed

lemma grow_block:
  assumes "array_rep self xs" and "length xs + unat count < 2 ^ 32" and "0 < count"
  obtains b where "contents (array__grow al self count) = Some b"
    and "length b = unat (capacity (array__grow al self count))"
    and "length xs + unat count \<le> length b" and "take (length xs) b = map Some xs"
    and "array_size (array__grow al self count) = array_size self"
proof -
  from grow_reserve [OF assms] obtain n where n: "unat n \<ge> length xs + unat count" "0 < n"
    "array__grow al self count = array__reserve al self n \<or>
     array__grow al self count = self \<and> n \<le> capacity self" by blast
  from n(3) have g: "array__grow al self count = array__reserve al self n"
    by (auto simp: array__reserve_def)
  obtain b where "contents (array__reserve al self n) = Some b"
    "length b = unat (capacity (array__reserve al self n))" "unat n \<le> length b"
    "take (length xs) b = map Some xs"
    by (rule reserve_block [OF assms(1) n(2)])
  with that [of b] n(1) show thesis by (simp add: g)
qed

lemma push_rep:
  assumes "array_rep self xs" and "length xs + 1 < 2 ^ 32"
  shows "\<exists>self'. array_push al self x = Inr self' \<and> array_rep self' (xs @ [x])"
proof -
  obtain b where b: "contents (array__grow al self 1) = Some b"
    "length b = unat (capacity (array__grow al self 1))" "length xs + 1 \<le> length b"
    "take (length xs) b = map Some xs" "array_size (array__grow al self 1) = array_size self"
    using grow_block [OF assms(1), of 1] assms(2) by auto
  from mem_write_front [OF b(4) refl, of "[x]"] b(3) obtain b' where
    "mem_write (Some b) (length xs) [Some x] = Inr (Some b')" "length b' = length b"
    "take (length xs + 1) b' = map Some (xs @ [x])" by auto
  with b assms show ?thesis
    by (simp add: array_push_def array_rep_def unat_inc32)
qed

lemma grow_by_rep:
  assumes "array_rep self xs" and "length xs + unat count < 2 ^ 32"
  shows "\<exists>self'. array_grow_by al zero self count = Inr self' \<and>
    array_rep self' (xs @ replicate (unat count) zero)"
proof (cases "count = 0")
  case True
  with assms show ?thesis by (simp add: array_grow_by_def)
next
  case False
  then have "0 < count" by (simp add: word_neq_0_conv)
  from grow_block [OF assms this] obtain b where b: "contents (array__grow al self count) = Some b"
    "length b = unat (capacity (array__grow al self count))" "length xs + unat count \<le> length b"
    "take (length xs) b = map Some xs" "array_size (array__grow al self count) = array_size self"
    by blast
  from mem_write_front [OF b(4) refl, of "replicate (unat count) zero"] b(3) obtain b' where
    "mem_write (Some b) (length xs) (replicate (unat count) (Some zero)) = Inr (Some b')"
    "length b' = length b"
    "take (length xs + unat count) b' = map Some (xs @ replicate (unat count) zero)"
    by (auto simp: map_replicate)
  moreover have "unat (array_size self + count) = length xs + unat count"
    using assms(2) array_rep_size [OF assms(1)] by (simp add: unat_add32)
  ultimately show ?thesis
    using b assms False by (simp add: array_grow_by_def array_rep_def Let_def)
qed

subsection \<open>Splicing\<close>

lemma splice_writes:
  assumes "index + old_count \<le> array_size self"
    and "contents (array__reserve al self (array_size self + new_count - old_count)) = Some b"
    and "memmove (Some b) (unat (index + new_count)) (unat (index + old_count))
      (unat (array_size self - (index + old_count))) = Inr (Some b1)"
    and "mem_write (Some b1) (unat index) (map Some ys) = Inr (Some b2)"
    and "unat new_count = length ys"
    and "elements = Some ys \<or> elements = None \<and> ys = replicate (unat new_count) zero"
  shows "array__splice al zero self index old_count new_count elements =
    Inr ((array__reserve al self (array_size self + new_count - old_count))
      \<lparr>contents := Some b2, array_size := array_size self + new_count - old_count\<rparr>)"
proof -
  have move: "(if index + old_count < array_size self
      then memmove (Some b) (unat (index + new_count)) (unat (index + old_count))
        (unat (array_size self - (index + old_count)))
      else Inr (Some b)) = Inr (Some b1)"
    using assms(1,3) by (auto simp: memmove_def mem_read_def mem_write_def)
  have z: "replicate (unat new_count) (Some zero) = map Some ys" if "elements = None"
    using assms(6) that by (auto simp: map_replicate)
  have nz: "0 < new_count \<longleftrightarrow> ys \<noteq> []" using assms(5) by (simp add: word_less_nat_alt)
  have wr: "(if 0 < new_count then
      (case elements of
         None \<Rightarrow> mem_write (Some b1) (unat index) (replicate (unat new_count) (Some zero))
       | Some es \<Rightarrow>
           if unat new_count \<le> length es
           then mem_write (Some b1) (unat index) (map Some (take (unat new_count) es))
           else Inl Out_Of_Bounds)
      else Inr (Some b1)) = Inr (Some b2)"
  proof (cases "ys = []")
    case True
    with assms(4) nz show ?thesis by (simp add: mem_write_def)
  next
    case False
    with assms(4-6) nz z show ?thesis by (cases elements) auto
  qed
  have "array_size self + (new_count - old_count) = array_size self + new_count - old_count" by simp
  then show ?thesis
    by (simp add: array__splice_def Let_def assms(1,2) move wr cong: if_cong split del: if_split)
qed

text \<open>With nothing in the array and nothing to insert there may be no block at all.\<close>

lemma splice_nothing:
  assumes "array_rep self []" and "index + old_count \<le> array_size self"
    and "array_size self + new_count - old_count = 0" and "new_count = 0"
  shows "array__splice al zero self index old_count new_count elements = Inr self"
proof -
  have "array_size self = 0" using assms(1) by (simp add: array_rep_def word_unat_eq_iff)
  with assms(2-4) show ?thesis
    by (simp add: array__splice_def array__reserve_def Let_def)
qed

lemma splice_rep:
  assumes rep: "array_rep self xs" and old: "unat index + unat old_count \<le> length xs"
    and new: "length xs - unat old_count + length ys < 2 ^ 32" and cnt: "unat new_count = length ys"
    and ys: "elements = Some ys \<or> elements = None \<and> ys = replicate (unat new_count) zero"
  shows "\<exists>self'. array__splice al zero self index old_count new_count elements = Inr self' \<and>
    array_rep self' (take (unat index) xs @ ys @ drop (unat index + unat old_count) xs)"
proof -
  let ?i = "unat index" and ?oc = "unat old_count"
  let ?sz = "array_size self + new_count - old_count"
  let ?zs = "take ?i xs @ ys @ drop (?i + ?oc) xs"
  note sz = array_rep_size [OF rep]
  have nsz: "unat ?sz = length xs - ?oc + length ys"
    using unat_add_sub32 [of old_count "array_size self" new_count] sz cnt old new by simp
  have oe: "unat (index + old_count) = ?i + ?oc"
    using old array_rep_length [OF rep] by (simp add: unat_add32)
  have ne: "unat (index + new_count) = ?i + length ys"
    using old new cnt by (simp add: unat_add32)
  have assert: "index + old_count \<le> array_size self" using oe sz old by (simp add: word_le_nat_alt)
  let ?self = "array__reserve al self ?sz"
  note rep' = reserve_rep [OF rep, of ?sz] and cap = reserve_capacity [of ?sz self]
  show ?thesis
  proof (cases "contents ?self")
    case None
    with rep' cap nsz have *: "xs = []" "?sz = 0" "ys = []" by (auto simp: array_rep_def)
    with cnt have "new_count = 0" by (simp add: word_unat_eq_iff)
    with splice_nothing [OF _ assert *(2), of zero elements] rep * show ?thesis by simp
  next
    case (Some b)
    with rep' have b: "length b = unat (capacity ?self)" "length xs \<le> length b"
      "take (length xs) b = map Some xs" by (simp_all add: array_rep_def)
    have fits: "length xs - ?oc + length ys \<le> length b"
      using cap b(1) nsz by (simp add: word_le_nat_alt)
    from splice_block [OF b(3,2) old fits] obtain b1 b2 where
      b1: "memmove (Some b) (?i + length ys) (?i + ?oc) (length xs - (?i + ?oc)) = Inr (Some b1)"
      and b2: "mem_write (Some b1) ?i (map Some ys) = Inr (Some b2)" "length b2 = length b"
        "take (length xs - ?oc + length ys) b2 = map Some ?zs" by blast
    have "unat (array_size self - (index + old_count)) = length xs - (?i + ?oc)"
      using oe sz old by (simp add: unat_sub32)
    with splice_writes [OF assert Some _ b2(1) cnt ys] b1 ne oe
    have "array__splice al zero self index old_count new_count elements =
        Inr (?self\<lparr>contents := Some b2, array_size := ?sz\<rparr>)" by simp
    moreover have "array_rep (?self\<lparr>contents := Some b2, array_size := ?sz\<rparr>) ?zs"
      by (rule array_repI) (use old nsz fits b2 b(1) in simp_all)
    ultimately show ?thesis by blast
  qed
qed

end

text \<open>An allocator that never fails: new cells are not initialised.\<close>

definition heap_allocator :: "'a allocator" where
  "heap_allocator = \<lparr>ts_malloc = (\<lambda>n. Some (replicate n None)),
     ts_realloc = (\<lambda>b n. Some (take n b @ replicate (n - length b) None))\<rparr>"

interpretation heap: total_allocator heap_allocator
  by unfold_locales (auto simp: heap_allocator_def min_def)

subsection \<open>Reading, removing, copying\<close>

text \<open>The initialised cells at the front of a block.\<close>

lemma takeWhile_Some:
  "takeWhile (\<lambda>c. c \<noteq> None) (map Some ys @ r) = map Some ys @ takeWhile (\<lambda>c. c \<noteq> None) r"
  by (induction ys) simp_all

text \<open>\<^verbatim>\<open>_array__splice\<close> reads as many elements as it inserts.\<close>

lemma splice_take:
  assumes "unat new_count \<le> length es"
  shows "array__splice al zero self index old_count new_count (Some es) =
    array__splice al zero self index old_count new_count (Some (take (unat new_count) es))"
  using assms by (simp add: array__splice_def Let_def min_def)

lemma get_rep: "array_rep self xs \<Longrightarrow> unat i < length xs \<Longrightarrow> array_get self i = Inr (xs ! unat i)"
  by (simp add: array_get_def word_less_nat_alt array_rep_size mem_get_rep)

lemma get_outside: "array_rep self xs \<Longrightarrow> length xs \<le> unat i \<Longrightarrow> array_get self i = Inl Assertion_Failed"
  by (simp add: array_get_def word_less_nat_alt array_rep_size)

lemma erase_rep:
  assumes rep: "array_rep self xs" and i: "unat index < length xs"
  shows "\<exists>self'. array__erase self index = Inr self' \<and>
    array_rep self' (take (unat index) xs @ drop (unat index + 1) xs)"
proof -
  let ?i = "unat index"
  note sz = array_rep_size [OF rep]
  from rep i obtain b where b: "contents self = Some b" "length b = unat (capacity self)"
    "length xs \<le> length b" "take (length xs) b = map Some xs"
    by (auto simp: array_rep_def split: option.splits)
  obtain b1 b2 where w: "memmove (Some b) (?i + length []) (?i + 1) (length xs - (?i + 1)) = Inr (Some b1)"
    "mem_write (Some b1) ?i (map Some []) = Inr (Some b2)" "length b2 = length b"
    "take (length xs - 1 + length []) b2 = map Some (take ?i xs @ [] @ drop (?i + 1) xs)"
    by (rule splice_block [OF b(4,3), of ?i 1 "[]"]) (use i b(3) in auto)
  then have b1: "memmove (Some b) ?i (?i + 1) (length xs - (?i + 1)) = Inr (Some b1)"
    "length b1 = length b" "take (length xs - 1) b1 = map Some (take ?i xs @ drop (?i + 1) xs)"
    by (auto simp: mem_write_def)
  have s: "unat (array_size self - index) = length xs - ?i" using i sz by (simp add: unat_sub32)
  have "0 < unat (array_size self)" "0 < unat (array_size self - index)" unfolding s sz using i by auto
  note dec = this [THEN unat_dec32]
  have u: "unat (index + 1) = ?i + 1" "unat (array_size self - index - 1) = length xs - (?i + 1)"
    "unat (array_size self - 1) = length xs - 1"
    using i sz s dec array_rep_length [OF rep] by (auto simp: unat_inc32)
  have "array__erase self index = Inr (self\<lparr>contents := Some b1, array_size := array_size self - 1\<rparr>)"
    using i sz b1(1) by (simp add: array__erase_def word_less_nat_alt u b(1))
  moreover have "array_rep (self\<lparr>contents := Some b1, array_size := array_size self - 1\<rparr>)
      (take ?i xs @ drop (?i + 1) xs)"
    by (rule array_repI) (use i u b b1 in auto)
  ultimately show ?thesis by blast
qed

lemma erase_outside:
  "array_rep self xs \<Longrightarrow> length xs \<le> unat i \<Longrightarrow> array__erase self i = Inl Assertion_Failed"
  by (simp add: array__erase_def word_less_nat_alt array_rep_size)

lemma pop_rep:
  assumes rep: "array_rep self (xs @ [x])"
  shows "\<exists>self'. array_pop self = Inr (x, self') \<and> array_rep self' xs"
proof -
  have u: "unat (array_size self - 1) = length xs"
    using array_rep_size [OF rep] by (simp add: unat_dec32)
  from mem_get_rep [OF rep, of "length xs"] have "mem_get (contents self) (length xs) = Inr x" by simp
  moreover have "array_rep (self\<lparr>array_size := array_size self - 1\<rparr>) xs"
    using rep u by (auto simp: array_rep_def take_Suc_conv_app_nth split: option.splits)
  ultimately show ?thesis by (simp add: array_pop_def u)
qed

text \<open>Popping an empty array wraps the size around and reads at index \<open>2 ^ 32 - 1\<close>.\<close>

lemma pop_empty:
  assumes "array_rep self []"
  shows "array_pop self = Inl (if contents self = None then Null_Pointer else Out_Of_Bounds)"
proof -
  have "array_size self = 0" using array_rep_size [OF assms] by (simp add: word_unat_eq_iff)
  then have u: "unat (array_size self - 1) = 2 ^ 32 - 1"
    by (simp add: unsigned_minus_1_eq_mask mask_eq_exp_minus_1)
  have "length b \<le> 2 ^ 32 - 1" if "contents self = Some b" for b
    using assms that unat_less_32 [of "capacity self"] by (simp add: array_rep_def)
  then show ?thesis
    by (auto simp: array_pop_def mem_get_def u simp del: unat_minus_one split: option.split)
qed

context total_allocator
begin

lemma assign_rep:
  assumes self: "array_rep self xs" and other: "array_rep other ys"
  shows "\<exists>self'. array__assign al self other = Inr self' \<and> array_rep self' ys"
proof -
  let ?self = "array__reserve al self (array_size other)"
  note rep' = reserve_rep [OF self, of "array_size other"] and cap = reserve_capacity [of "array_size other" self]
  note sz = array_rep_size [OF other]
  have rd: "mem_read (contents other) 0 (length ys) = Inr (map Some ys)"
    using other by (auto simp: mem_read_def array_rep_def split: option.splits)
  show ?thesis
  proof (cases "contents ?self")
    case None
    with rep' cap sz have "ys = []" by (auto simp: array_rep_def)
    with None rep' rd sz show ?thesis
      by (auto simp: array__assign_def Let_def mem_write_def array_rep_def)
  next
    case (Some b)
    with rep' cap sz have b: "length b = unat (capacity ?self)" "length ys \<le> length b"
      by (simp_all add: array_rep_def word_le_nat_alt)
    from mem_write_front [of 0 b "[]" ys] b(2) obtain b' where
      b': "mem_write (Some b) 0 (map Some ys) = Inr (Some b')" "length b' = length b"
        "take (length ys) b' = map Some ys" by auto
    have "array__assign al self other = Inr (?self\<lparr>array_size := array_size other, contents := Some b'\<rparr>)"
      using rd b'(1) Some sz by (simp add: array__assign_def Let_def)
    moreover have "array_rep (?self\<lparr>array_size := array_size other, contents := Some b'\<rparr>) ys"
      by (rule array_repI) (use b b' sz in simp_all)
    ultimately show ?thesis by blast
  qed
qed

end

subsection \<open>Binary search\<close>

lemma search_loop_rep:
  assumes rep: "array_rep self xs" and cmp: "\<And>x. x \<in> set xs \<Longrightarrow> compare x needle = Inr (c x)"
    and asc: "sorted (map c xs)" and n: "0 < unat n" "unat index + unat n \<le> length xs"
    and hi: "\<And>k. unat index + unat n \<le> k \<Longrightarrow> k < length xs \<Longrightarrow> 0 < c (xs ! k)"
    and lo: "index = 0 \<or> c (xs ! unat index) \<le> 0"
  shows "\<exists>i. search_loop compare self needle index n = Inr i \<and> unat i < length xs \<and>
    (\<forall>k. unat i < k \<longrightarrow> k < length xs \<longrightarrow> 0 < c (xs ! k)) \<and> (i = 0 \<or> c (xs ! unat i) \<le> 0)"
  using n hi lo
proof (induction n arbitrary: index rule: measure_induct_rule [of unat])
  case (less n)
  show ?case
  proof (cases "n > 1")
    case False
    then have "unat n = 1" using less.prems by (simp add: word_less_nat_alt)
    with False less.prems show ?thesis by auto
  next
    case True
    let ?m = "index + n div 2"
    have n: "1 < unat n" using True by (simp add: word_less_nat_alt)
    define k where "k = unat index + unat n div 2"
    have m: "unat ?m = k"
      using less.prems(2) array_rep_length [OF rep] by (simp add: unat_add32 unat_half k_def)
    have k: "k < length xs" using n less.prems(2) by (simp add: k_def)
    let ?i = "if c (xs ! k) \<le> 0 then ?m else index"
    have step: "search_loop compare self needle index n = search_loop compare self needle ?i (n - n div 2)"
      using True mem_get_rep [OF rep k] cmp [of "xs ! k"] k
      by (subst search_loop.simps) (simp add: Let_def m)
    have "\<exists>i. search_loop compare self needle ?i (n - n div 2) = Inr i \<and> unat i < length xs \<and>
      (\<forall>k. unat i < k \<longrightarrow> k < length xs \<longrightarrow> 0 < c (xs ! k)) \<and> (i = 0 \<or> c (xs ! unat i) \<le> 0)"
    proof (rule less.IH)
      show "unat (n - n div 2) < unat n" "0 < unat (n - n div 2)"
        "unat ?i + unat (n - n div 2) \<le> length xs"
        using n less.prems(2) by (auto simp: unat_half m k_def)
      show "?i = 0 \<or> c (xs ! unat ?i) \<le> 0" using less.prems(4) by (simp add: m)
      show "0 < c (xs ! j)" if j: "unat ?i + unat (n - n div 2) \<le> j" "j < length xs" for j
      proof (cases "c (xs ! k) \<le> 0")
        case True
        with j n less.prems(3) [of j] show ?thesis by (simp add: unat_half m k_def)
      next
        case False
        with j n have "k \<le> j" by (simp add: unat_half k_def)
        with asc j(2) have "c (xs ! k) \<le> c (xs ! j)" using sorted_nth_mono [of "map c xs" k j] by simp
        with False show ?thesis by simp
      qed
    qed
    with step show ?thesis by simp
  qed
qed

text \<open>
  What the search promises: the element is found if it is there; if not, the index separates the
  smaller elements from the larger ones.
\<close>

definition search_result :: "('a \<Rightarrow> int) \<Rightarrow> 'a list \<Rightarrow> nat \<Rightarrow> bool \<Rightarrow> bool" where
  "search_result c xs i exists \<longleftrightarrow>
     (if exists then i < length xs \<and> c (xs ! i) = 0
      else i \<le> length xs \<and> (\<forall>x \<in> set (take i xs). c x < 0) \<and> (\<forall>x \<in> set (drop i xs). 0 < c x))"

text \<open>
  Values that fit in an \<^verbatim>\<open>int\<close> are converted to themselves, and compared by their difference if that
  fits too. Unsigned values outside change their sign.
\<close>

lemma to_int_id: "- (2 ^ 31) \<le> a \<Longrightarrow> a < 2 ^ 31 \<Longrightarrow> to_int a = a"
  by (simp add: to_int_def int_word_sint mod_pos_pos_trivial)

lemma compare_int_fits:
  assumes "- (2 ^ 31) \<le> a" "a < 2 ^ 31" "- (2 ^ 31) \<le> b" "b < 2 ^ 31"
    and "- (2 ^ 31) \<le> a - b" "a - b < 2 ^ 31"
  shows "compare_int a b = Inr (a - b)"
  using assms(5,6) by (simp add: compare_int_def to_int_id [OF assms(1,2)] to_int_id [OF assms(3,4)])

lemma compare_int_unsigned: "compare_int (2 ^ 31) (2 ^ 31 - 1) = Inl Signed_Overflow"
  by (simp add: compare_int_def to_int_def)

lemma search_rep:
  assumes rep: "array_rep self xs" and cmp: "\<And>x. x \<in> set xs \<Longrightarrow> compare x needle = Inr (c x)"
    and asc: "sorted (map c xs)"
  shows "\<exists>i exists. array_search_sorted_with compare self needle = Inr (i, exists) \<and>
    search_result c xs (unat i) exists"
proof (cases "xs = []")
  case True
  with array_rep_size [OF rep] have "array_size self = 0" by (simp add: word_unat_eq_iff)
  with True show ?thesis
    by (auto simp: array_search_sorted_with_def array__search_sorted_def search_result_def)
next
  case False
  note sz = array_rep_size [OF rep]
  from search_loop_rep [where compare = compare and needle = needle and c = c and index = 0, OF rep cmp asc,
      of "array_size self"] False sz obtain i where
    i: "search_loop compare self needle 0 (array_size self) = Inr i" "unat i < length xs"
      "\<And>k. unat i < k \<Longrightarrow> k < length xs \<Longrightarrow> 0 < c (xs ! k)" "i = 0 \<or> c (xs ! unat i) \<le> 0"
    by auto
  have ne: "array_size self \<noteq> 0" using False sz by auto
  have eq: "array_search_sorted_with compare self needle =
      Inr (if c (xs ! unat i) = 0 then (i, True) else if c (xs ! unat i) < 0 then (i + 1, False) else (i, False))"
    using i(1) ne mem_get_rep [OF rep i(2)] cmp [OF nth_mem [OF i(2)]]
    by (simp add: array_search_sorted_with_def array__search_sorted_def del: search_loop.simps)
  have before: "c x \<le> c (xs ! unat i)" if "x \<in> set (take (Suc (unat i)) xs)" for x
    using that asc i(2) sorted_nth_mono [of "map c xs" _ "unat i"]
    by (auto simp: in_set_conv_nth)
  have after: "0 < c x" if "x \<in> set (drop (Suc (unat i)) xs)" for x
    using that i(3) by (auto simp: in_set_conv_nth)
  have inc: "unat (i + 1) = Suc (unat i)"
    using i(2) array_rep_length [OF rep] by (simp add: unat_inc32)
  show ?thesis
  proof (cases "c (xs ! unat i)" "0 :: int" rule: linorder_cases)
    case less
    have "\<forall>x \<in> set (take (Suc (unat i)) xs). c x < 0" using before less by (meson le_less_trans)
    with after i(2) have "search_result c xs (unat (i + 1)) False" by (simp add: search_result_def inc)
    with eq less show ?thesis by auto
  next
    case equal
    with eq i(2) show ?thesis by (auto simp: search_result_def)
  next
    case greater
    with i(4) have "i = 0" by simp
    with greater eq after False show ?thesis
      by (cases xs) (auto simp: search_result_def)
  qed
qed

subsection \<open>The interface of a bounded sequence\<close>

text \<open>Pushing a list of elements, popping a number of them.\<close>

primrec push_list :: "('s \<Rightarrow> 'a \<Rightarrow> 's result) \<Rightarrow> 's \<Rightarrow> 'a list \<Rightarrow> 's result" where
  "push_list push s [] = Inr s"
| "push_list push s (x # xs) = bind_result (push s x) (\<lambda>s'. push_list push s' xs)"

primrec pop_list :: "('s \<Rightarrow> ('a \<times> 's) result) \<Rightarrow> nat \<Rightarrow> 's \<Rightarrow> 'a list result" where
  "pop_list pop 0 s = Inr []"
| "pop_list pop (Suc n) s =
     bind_result (pop s) (\<lambda>(x, s'). bind_result (pop_list pop n s') (\<lambda>xs. Inr (x # xs)))"

text \<open>
  What a user of the array relies on: a relation between arrays and lists and four operations,
  with the laws that hold below a bound on the length.
\<close>

locale bounded_sequence =
  fixes rep :: "'s \<Rightarrow> 'a list \<Rightarrow> bool"
    and bound :: nat
    and empty :: 's
    and push :: "'s \<Rightarrow> 'a \<Rightarrow> 's result"
    and pop :: "'s \<Rightarrow> ('a \<times> 's) result"
    and get :: "'s \<Rightarrow> 32 word \<Rightarrow> 'a result"
  assumes empty_law: "rep empty []"
    and push_law: "rep s xs \<Longrightarrow> length xs + 1 < bound \<Longrightarrow> \<exists>s'. push s x = Inr s' \<and> rep s' (xs @ [x])"
    and pop_law: "rep s (xs @ [x]) \<Longrightarrow> \<exists>s'. pop s = Inr (x, s') \<and> rep s' xs"
    and get_law: "rep s xs \<Longrightarrow> unat i < length xs \<Longrightarrow> get s i = Inr (xs ! unat i)"
begin

lemma push_list_law:
  "rep s xs \<Longrightarrow> length xs + length ys < bound \<Longrightarrow> \<exists>s'. push_list push s ys = Inr s' \<and> rep s' (xs @ ys)"
proof (induction ys arbitrary: s xs)
  case (Cons y ys)
  then obtain s1 where s1: "push s y = Inr s1" "rep s1 (xs @ [y])"
    using push_law [of s xs y] by auto
  with Cons.IH [OF s1(2)] Cons.prems(2) show ?case by auto
qed auto

lemma pop_list_law: "rep s (ys @ xs) \<Longrightarrow> pop_list pop (length xs) s = Inr (rev xs)"
proof (induction xs arbitrary: s rule: rev_induct)
  case (snoc x xs)
  then obtain s' where "pop s = Inr (x, s')" "rep s' (ys @ xs)" using pop_law [of s "ys @ xs" x] by auto
  with snoc.IH [of s'] show ?case by simp
qed simp

lemma push_pop_list:
  assumes "length xs < bound"
  shows "\<exists>s. push_list push empty xs = Inr s \<and> pop_list pop (length xs) s = Inr (rev xs) \<and>
    (\<forall>i. unat i < length xs \<longrightarrow> get s i = Inr (xs ! unat i))"
  using push_list_law [OF empty_law, of xs] assms pop_list_law [of _ "[]" xs] get_law by fastforce

end

text \<open>Every array with a total allocator is one.\<close>

sublocale total_allocator \<subseteq> seq: bounded_sequence array_rep "2 ^ 32" array_new "array_push al" array_pop array_get
  by unfold_locales (rule array_rep_new push_rep pop_rep get_rep; assumption)+

interpretation heap_seq: bounded_sequence array_rep "2 ^ 32" array_new "array_push heap_allocator" array_pop array_get
  by (rule heap.seq.bounded_sequence_axioms)

subsection \<open>Correctness of the array\<close>

text \<open>
  C28. Elements pushed one after the other, starting from a new array, can all be read back at their
  indices and are popped in the opposite order, for every number of elements below \<open>2 ^ 32\<close> and every
  allocator that does not run out of memory; the growth by doubling never makes an access fail.
\<close>

theorem array_push_pop:
  assumes "total_allocator al" and "length xs < 2 ^ 32"
  shows "\<exists>self. push_list (array_push al) array_new xs = Inr self \<and>
    pop_list array_pop (length xs) self = Inr (rev xs) \<and>
    (\<forall>i. unat i < length xs \<longrightarrow> array_get self i = Inr (xs ! unat i))"
proof -
  have "bounded_sequence array_rep (2 ^ 32) array_new (array_push al) array_pop array_get"
    using total_allocator.push_rep [OF assms(1)]
    by (intro bounded_sequence.intro) (auto intro: array_rep_new pop_rep get_rep)
  from bounded_sequence.push_pop_list [OF this assms(2)] show ?thesis .
qed

theorem array_push_pop_witness:
  "\<exists>self. push_list (array_push heap_allocator) array_new [5, 7, 9 :: int] = Inr self \<and>
     pop_list array_pop 3 self = Inr [9, 7, 5]"
proof -
  have n: "length [5, 7, 9 :: int] = 3" "rev [5, 7, 9 :: int] = [9, 7, 5]" "(3 :: nat) < 2 ^ 32" by simp_all
  show ?thesis
    using array_push_pop [OF heap.total_allocator_axioms, of "[5, 7, 9 :: int]", unfolded n(1,2), OF n(3)]
    by blast
qed

text \<open>
  C27. Splicing is replacement of a segment: on an array that holds \<open>xs\<close> the result holds \<open>xs\<close> with
  the \<open>old_count\<close> elements from \<open>index\<close> on replaced by the new ones (zeros when no elements are given),
  whenever the segment lies inside the array and the new length fits in 32 bits. Insertion,
  extension and appending another array are instances.
\<close>

theorem array_splice_correct:
  assumes "total_allocator al" and "array_rep self xs" and "unat index + unat old_count \<le> length xs"
    and "length xs - unat old_count + length ys < 2 ^ 32" and "unat new_count = length ys"
    and "elements = Some ys \<or> elements = None \<and> ys = replicate (unat new_count) zero"
  shows "\<exists>self'. array__splice al zero self index old_count new_count elements = Inr self' \<and>
    array_rep self' (take (unat index) xs @ ys @ drop (unat index + unat old_count) xs)"
  by (rule total_allocator.splice_rep [OF assms])

lemma example_rep:
  "array_rep \<lparr>contents = Some [Some 5, Some 7, None, None], array_size = 2, capacity = 4\<rparr> [5, 7 :: int]"
  by (simp add: array_rep_def)

theorem array_splice_correct_witness:
  "\<exists>self'. array__splice heap_allocator 0
      \<lparr>contents = Some [Some 5, Some 7, None, None], array_size = 2, capacity = 4\<rparr> 1 1 2 (Some [8, 9 :: int]) =
      Inr self' \<and> array_rep self' [5, 8, 9]"
  using array_splice_correct [OF heap.total_allocator_axioms example_rep, of 1 1 "[8, 9]" 2 "Some [8, 9]" 0]
  by simp

text \<open>
  C32. Erasing removes exactly the element at the index and keeps the others in order; an index
  outside the array is caught by the assertion.
\<close>

theorem array_erase_correct:
  assumes "array_rep self xs"
  shows "if unat index < length xs
    then \<exists>self'. array__erase self index = Inr self' \<and>
      array_rep self' (take (unat index) xs @ drop (unat index + 1) xs)
    else array__erase self index = Inl Assertion_Failed"
  using erase_rep [OF assms, of index] erase_outside [OF assms, of index] by simp

theorem array_erase_correct_witness:
  "\<exists>self'. array__erase \<lparr>contents = Some [Some 5, Some 7, None, None], array_size = 2, capacity = 4\<rparr> 0 =
     Inr self' \<and> array_rep self' [7 :: int]"
  using array_erase_correct [OF example_rep, of 0] by simp

text \<open>
  C33. Assignment copies: after it the array holds the elements of the other one, whatever it held
  before.
\<close>

theorem array_assign_correct:
  assumes "total_allocator al" and "array_rep self xs" and "array_rep other ys"
  shows "\<exists>self'. array__assign al self other = Inr self' \<and> array_rep self' ys"
  by (rule total_allocator.assign_rep [OF assms])

theorem array_assign_correct_witness:
  "\<exists>self'. array__assign heap_allocator array_new
     \<lparr>contents = Some [Some 5, Some 7, None, None], array_size = 2, capacity = 4\<rparr> = Inr self' \<and>
     array_rep self' [5, 7 :: int]"
  by (rule array_assign_correct [OF heap.total_allocator_axioms array_rep_new example_rep])

text \<open>
  C30. Search by an integer field in an array sorted by it: the element is found if it is there; if
  not, the index separates the smaller elements from the larger ones. \<^verbatim>\<open>_compare_int\<close> converts the
  field values and the needle to \<^verbatim>\<open>int\<close> and subtracts them, so they and their differences have to
  fit in an \<^verbatim>\<open>int\<close>.
\<close>

theorem array_search_sorted_correct:
  assumes "array_rep self xs" and "sorted (map field xs)"
    and "\<forall>x \<in> set xs. - (2 ^ 31) \<le> field x \<and> field x < 2 ^ 31" and "- (2 ^ 31) \<le> needle" and "needle < 2 ^ 31"
    and "\<forall>x \<in> set xs. - (2 ^ 31) \<le> field x - needle \<and> field x - needle < 2 ^ 31"
  shows "\<exists>i exists. array_search_sorted_by field self needle = Inr (i, exists) \<and>
    search_result (\<lambda>x. field x - needle) xs (unat i) exists"
proof -
  have "sorted (map (\<lambda>x. field x - needle) xs)"
    using assms(2) by (simp add: sorted_map sorted_wrt_iff_nth_less)
  moreover have "compare_int (field x) needle = Inr (field x - needle)" if "x \<in> set xs" for x
    using assms(3-6) that by (intro compare_int_fits) auto
  ultimately show ?thesis
    using search_rep [OF assms(1), where compare = "\<lambda>x. compare_int (field x)" and needle = needle
        and c = "\<lambda>x. field x - needle"]
    by (simp add: array_search_sorted_by_def array_search_sorted_with_def)
qed

theorem array_search_sorted_correct_witness:
  "\<exists>i exists. array_search_sorted_by id
     \<lparr>contents = Some [Some 5, Some 7, None, None], array_size = 2, capacity = 4\<rparr> 6 = Inr (i, exists) \<and>
     search_result (\<lambda>x. id x - 6) [5, 7 :: int] (unat i) exists"
  by (rule array_search_sorted_correct [OF example_rep]) simp_all

text \<open>
  C29. Insertion into an array sorted by an integer field, without duplicates, keeps it so: the new
  array holds the old elements and the new one, or is unchanged if an element with the same field
  value is there already. The field values and their differences from the new one fit in an \<^verbatim>\<open>int\<close>.
\<close>

theorem array_insert_sorted_correct:
  assumes "total_allocator al" and "array_rep self xs" and "sorted_wrt (\<lambda>x y. field x < field y) xs"
    and "length xs + 1 < 2 ^ 32"
    and "\<forall>x \<in> set xs. - (2 ^ 31) \<le> field x \<and> field x < 2 ^ 31" and "- (2 ^ 31) \<le> field v" and "field v < 2 ^ 31"
    and "\<forall>x \<in> set xs. - (2 ^ 31) \<le> field x - field v \<and> field x - field v < 2 ^ 31"
  shows "\<exists>self' ys. array_insert_sorted_by al zero field self v = Inr self' \<and> array_rep self' ys \<and>
    sorted_wrt (\<lambda>x y. field x < field y) ys \<and>
    (if field v \<in> field ` set xs then ys = xs else set ys = insert v (set xs))"
proof -
  let ?c = "\<lambda>x. field x - field v"
  have asc: "sorted (map ?c xs)"
    using assms(3) by (auto simp: sorted_map elim: sorted_wrt_mono_rel [rotated])
  have cmp: "compare_int (field x) (field v) = Inr (?c x)" if "x \<in> set xs" for x
    using assms(5-8) that by (intro compare_int_fits) auto
  from search_rep [OF assms(2), where compare = "\<lambda>x. compare_int (field x)" and needle = "field v"
      and c = ?c, OF cmp asc]
  obtain i exists where i: "array_search_sorted_by field self (field v) = Inr (i, exists)"
    "search_result ?c xs (unat i) exists"
    by (auto simp: array_search_sorted_by_def array_search_sorted_with_def)
  show ?thesis
  proof (cases exists)
    case True
    with i have "field v \<in> field ` set xs" by (auto simp: search_result_def) (metis image_eqI nth_mem)
    with True i(1) assms(2,3) show ?thesis by (auto simp: array_insert_sorted_by_def)
  next
    case False
    let ?ys = "take (unat i) xs @ v # drop (unat i) xs"
    from False i(2) have lt: "unat i \<le> length xs" "\<forall>x \<in> set (take (unat i) xs). field x < field v"
      "\<forall>x \<in> set (drop (unat i) xs). field v < field x" by (auto simp: search_result_def)
    from total_allocator.splice_rep [OF assms(1,2), of i 0 "[v]" 1 "Some [v]" zero] lt(1) assms(4)
    obtain self' where "array_insert al zero self i v = Inr self'" "array_rep self' ?ys"
      by (auto simp: array_insert_def)
    moreover have "sorted_wrt (\<lambda>x y. field x < field y) ?ys"
      using sorted_wrt_take [OF assms(3), of "unat i"] sorted_wrt_drop [OF assms(3), of "unat i"] lt(2,3)
      by (auto simp: sorted_wrt_append) (meson less_trans)
    moreover have sx: "set xs = set (take (unat i) xs) \<union> set (drop (unat i) xs)"
      by (metis append_take_drop_id set_append)
    then have "set ?ys = insert v (set xs)" by simp
    moreover have "field v \<notin> field ` set xs" using lt(2,3) by (subst sx) auto
    ultimately show ?thesis using False i(1) by (auto simp: array_insert_sorted_by_def)
  qed
qed

theorem array_insert_sorted_correct_witness:
  "\<exists>self' ys. array_insert_sorted_by heap_allocator 0 id
     \<lparr>contents = Some [Some 5, Some 7, None, None], array_size = 2, capacity = 4\<rparr> 6 = Inr self' \<and>
     array_rep self' ys \<and> sorted_wrt (\<lambda>x y. id x < id y) ys \<and> set ys = {5, 6, 7 :: int}"
  using array_insert_sorted_correct [OF heap.total_allocator_axioms example_rep, of id 6 0] by auto

text \<open>
  C34. Appending. All elements of one well-formed array can be appended to another; the elements are
  read through the pointer of the other array, and what lies behind its size is not touched.
\<close>

theorem array_push_all_correct:
  assumes "total_allocator al" and "array_rep self xs" and "array_rep other ys"
    and "length xs + length ys < 2 ^ 32"
  shows "\<exists>self'. array_push_all al zero self other = Inr self' \<and> array_rep self' (xs @ ys)"
proof (cases "contents other")
  case None
  with assms(3) have "ys = []" "unat (array_size other) = 0" by (auto simp: array_rep_def)
  then have "ys = []" "array_size other = 0" by (simp_all add: unat_eq_0)
  with None assms(2) total_allocator.splice_rep [OF assms(1,2), of "array_size self" 0 "[]" 0 None zero]
  show ?thesis using array_rep_size [OF assms(2)] array_rep_length [OF assms(2)]
    by (simp add: array_push_all_def array_extend_def)
next
  case (Some b)
  let ?es = "map the (takeWhile (\<lambda>c. c \<noteq> None) b)"
  from Some assms(3) have b: "length ys \<le> length b" "take (length ys) b = map Some ys"
    "unat (array_size other) = length ys"
    by (auto simp: array_rep_def)
  have "b = map Some ys @ drop (length ys) b" using b(2) append_take_drop_id [of "length ys" b] by simp
  then obtain r where r: "b = map Some ys @ r" by blast
  then have es: "?es = ys @ map the (takeWhile (\<lambda>c. c \<noteq> None) r)"
    by (simp add: takeWhile_Some del: not_None_eq)
  have pre: "unat (array_size other) \<le> length ?es" "take (unat (array_size other)) ?es = ys"
    unfolding es b(3) by simp_all
  have "array_push_all al zero self other =
      array__splice al zero self (array_size self) 0 (array_size other) (Some ys)"
    unfolding array_push_all_def array_extend_def
    using splice_take [OF pre(1), of al zero self "array_size self" 0] by (simp only: Some option.map pre(2))
  moreover from total_allocator.splice_rep [OF assms(1,2), of "array_size self" 0 ys "array_size other" "Some ys" zero]
  have "\<exists>self'. array__splice al zero self (array_size self) 0 (array_size other) (Some ys) = Inr self' \<and>
      array_rep self' (xs @ ys)"
    using array_rep_size [OF assms(2)] assms(4) b(3) by simp
  ultimately show ?thesis by simp
qed

theorem array_push_all_correct_witness:
  "\<exists>self'. array_push_all heap_allocator 0 \<lparr>contents = Some [Some 5, Some 7, None, None], array_size = 2, capacity = 4\<rparr>
     \<lparr>contents = Some [Some 5, Some 7, None, None], array_size = 2, capacity = 4\<rparr> = Inr self' \<and>
     array_rep self' [5, 7, 5, 7 :: int]"
  using array_push_all_correct [OF heap.total_allocator_axioms example_rep example_rep] by simp

text \<open>
  C35. Growing by a number of elements appends as many zero elements.
\<close>

theorem array_grow_by_correct:
  assumes "total_allocator al" and "array_rep self xs" and "length xs + unat count < 2 ^ 32"
  shows "\<exists>self'. array_grow_by al zero self count = Inr self' \<and>
    array_rep self' (xs @ replicate (unat count) zero)"
  by (rule total_allocator.grow_by_rep [OF assms])

theorem array_grow_by_correct_witness:
  "\<exists>self'. array_grow_by heap_allocator 0
     \<lparr>contents = Some [Some 5, Some 7, None, None], array_size = 2, capacity = 4\<rparr> 3 = Inr self' \<and>
     array_rep self' [5, 7, 0, 0, 0 :: int]"
proof -
  have "replicate 3 (0 :: int) = [0, 0, 0]" by (simp add: numeral_3_eq_3)
  with array_grow_by_correct [OF heap.total_allocator_axioms example_rep, of 3 0] show ?thesis by simp
qed

text \<open>
  C36. Making room. As long as the new size fits, the array has room for it afterwards and holds the
  same elements; there is no new block when there is room already, and a new block is at least of
  8 elements and, unless the capacity would wrap around, of twice the old capacity.
\<close>

theorem array_grow_capacity:
  assumes "total_allocator al" and "array_rep self xs" and "length xs + unat count < 2 ^ 32"
  shows "let self' = array__grow al self count in
    array_rep self' xs \<and> length xs + unat count \<le> unat (capacity self') \<and>
    (length xs + unat count \<le> unat (capacity self) \<longrightarrow> self' = self) \<and>
    (unat (capacity self) < length xs + unat count \<longrightarrow>
       8 \<le> unat (capacity self') \<and>
       (unat (capacity self) < 2 ^ 31 \<longrightarrow> 2 * unat (capacity self) \<le> unat (capacity self')))"
proof -
  have sz: "unat (array_size self + count) = length xs + unat count"
    using assms(3) array_rep_size [OF assms(2)] by (simp add: unat_add32)
  have double: "unat (capacity self * 2) = 2 * unat (capacity self)" if "unat (capacity self) < 2 ^ 31"
    using that by (simp add: unat_word_ariths)
  show ?thesis
  proof (cases "array_size self + count > capacity self")
    case False
    with sz have "length xs + unat count \<le> unat (capacity self)" by (simp add: word_less_nat_alt)
    with False assms(2) show ?thesis by (simp add: array__grow_def)
  next
    case True
    define n where "n = (let c = capacity self * 2; c = (if c < 8 then 8 else c) in
      if c < array_size self + count then array_size self + count else c)"
    have le: "array_size self + count \<le> n" "8 \<le> n" "capacity self * 2 \<le> n" by (auto simp: n_def Let_def)
    have g: "array__grow al self count = array__reserve al self n" using True by (simp add: array__grow_def n_def Let_def)
    have "n > capacity self" using True le(1) by simp
    then have "capacity (array__reserve al self n) = n" by (simp add: array__reserve_def)
    moreover have "length xs + unat count \<le> unat n" "8 \<le> unat n" using le sz by (simp_all add: word_le_nat_alt)
    moreover have "2 * unat (capacity self) \<le> unat n" if "unat (capacity self) < 2 ^ 31"
      using double [OF that] le(3) by (simp add: word_le_nat_alt)
    moreover have "\<not> length xs + unat count \<le> unat (capacity self)" using True sz by (simp add: word_less_nat_alt)
    ultimately show ?thesis
      using g total_allocator.reserve_rep [OF assms(1,2), of n] by simp
  qed
qed

theorem array_grow_capacity_witness:
  "8 \<le> unat (capacity (array__grow heap_allocator
     \<lparr>contents = Some [Some 5, Some 7, None, None], array_size = 2, capacity = 4\<rparr> 3 :: int Array))"
  using array_grow_capacity [OF heap.total_allocator_axioms example_rep, of 3] by (simp add: Let_def)

subsection \<open>Where the array fails\<close>

text \<open>
  C37. The size wraps around: pushing onto an array of \<open>2 ^ 32 - 1\<close> elements asks for no new
  memory, because the new size is computed as 0, and writes behind the block.
\<close>

theorem array_push_overflow:
  assumes "array_rep self xs" and "length xs = 2 ^ 32 - 1"
  shows "array_push al self x = Inl Out_Of_Bounds"
proof -
  have s: "unat (array_size self) = 2 ^ 32 - 1" using array_rep_size [OF assms(1)] assms(2) by simp
  have "array_size self + 1 = 0"
  proof -
    have "array_size self = - 1"
      using s by (simp add: word_unat_eq_iff unsigned_minus_1_eq_mask mask_eq_exp_minus_1)
    then show ?thesis by simp
  qed
  then have g: "array__grow al self 1 = self" by (simp add: array__grow_def)
  from assms obtain b where b: "contents self = Some b" "length b = unat (capacity self)"
    by (auto simp: array_rep_def split: option.splits)
  with unat_less_32 [of "capacity self"] have "length b < 2 ^ 32" by simp
  with b(1) s g show ?thesis by (simp add: array_push_def mem_write_def)
qed

theorem array_push_overflow_witness:
  "array_push heap_allocator
     \<lparr>contents = Some (replicate (2 ^ 32 - 1) (Some 0)), array_size = - 1, capacity = - 1\<rparr> (1 :: int) =
   Inl Out_Of_Bounds"
proof (rule array_push_overflow)
  have u: "unat (- 1 :: 32 word) = 2 ^ 32 - 1"
    by (simp add: unsigned_minus_1_eq_mask mask_eq_exp_minus_1)
  show "array_rep \<lparr>contents = Some (replicate (2 ^ 32 - 1) (Some 0)), array_size = - 1, capacity = - 1\<rparr>
      (replicate (2 ^ 32 - 1) (0 :: int))"
    by (rule array_repI [of _ "replicate (2 ^ 32 - 1) (Some 0)"])
      (simp_all only: Array.select_convs length_replicate u map_replicate take_replicate order_refl min.idem)
qed (simp only: length_replicate)

text \<open>
  C38. The result of the allocator is not checked: when it has no memory for the first block, or for
  a larger one, pushing writes through \<^verbatim>\<open>NULL\<close>.
\<close>

theorem array_push_no_memory:
  assumes "array_rep self xs" and "unat (capacity self) = length xs" and "length xs + 1 < 2 ^ 32"
    and "\<And>n. ts_malloc al n = None" and "\<And>b n. ts_realloc al b n = None"
  shows "array_push al self x = Inl Null_Pointer"
proof -
  have "unat (array_size self + 1) = length xs + 1"
    using array_rep_size [OF assms(1)] assms(3) by (simp add: unat_inc32)
  then have gt: "array_size self + 1 > capacity self" using assms(2) by (simp add: word_less_nat_alt)
  have "contents (array__grow al self 1) = None"
    using gt assms(4,5)
    by (auto simp: array__grow_def array__reserve_def Let_def not_less split: option.split)
  then show ?thesis by (simp add: array_push_def mem_write_def)
qed

theorem array_push_no_memory_witness:
  "array_push \<lparr>ts_malloc = (\<lambda>n. None), ts_realloc = (\<lambda>b n. None)\<rparr> array_new (1 :: int) = Inl Null_Pointer"
  by (rule array_push_no_memory [OF array_rep_new]) (simp_all add: array_new_def)

text \<open>
  C39. The assertion of \<^verbatim>\<open>_array__splice\<close> does not catch a segment that ends beyond \<open>2 ^ 32\<close>. Removing
  such a segment from an index of the array on passes it: if more elements are removed than there
  are, the array grows by the elements between the wrapped end and the index, which it then holds
  twice; if not, \<^verbatim>\<open>memmove\<close> writes behind the block.
\<close>

theorem array_splice_wraps:
  assumes "total_allocator al" and "array_rep self xs" and "unat index \<le> length xs"
    and "2 ^ 32 \<le> unat index + unat old_count"
  shows "if length xs < unat old_count
    then \<exists>self'. array__splice al zero self index old_count 0 None = Inr self' \<and>
      array_rep self' (take (unat index) xs @ drop (unat index + unat old_count - 2 ^ 32) xs)
    else array__splice al zero self index old_count 0 None = Inl Out_Of_Bounds"
proof -
  let ?i = "unat index" and ?sz = "array_size self - old_count"
  let ?e = "unat index + unat old_count - 2 ^ 32" and ?self = "array__reserve al self (array_size self - old_count)"
  note sz = array_rep_size [OF assms(2)]
  have e: "unat (index + old_count) = ?e"
    using assms(4) unat_less_32 [of index] unat_less_32 [of old_count] by (simp add: unat_word_ariths mod_if)
  have lt: "?e < ?i" "?e < length xs"
    using assms(3,4) unat_less_32 [of old_count] by linarith+
  have assert: "index + old_count < array_size self" using e sz lt by (simp add: word_less_nat_alt)
  have move: "unat (array_size self - (index + old_count)) = length xs - ?e"
    using e sz lt by (simp add: unat_sub32)
  from total_allocator.reserve_rep [OF assms(1,2), of ?sz] lt obtain b where b: "contents ?self = Some b"
    "length b = unat (capacity ?self)" "length xs \<le> length b" "take (length xs) b = map Some xs"
    by (auto simp: array_rep_def split: option.splits)
  have src: "take (length xs - ?e) (drop ?e b) = map Some (drop ?e xs)"
    using lt(2) b(4) by (metis drop_map drop_take)
  have eq: "array__splice al zero self index old_count 0 None =
      bind_result (mem_write (Some b) ?i (map Some (drop ?e xs)))
        (\<lambda>p. Inr (?self\<lparr>contents := p, array_size := ?sz\<rparr>))"
    using assert b(1,3) move e lt src
    by (simp add: array__splice_def Let_def memmove_def mem_read_def less_imp_le)
  show ?thesis
  proof (cases "length xs < unat old_count")
    case True
    then have nsz: "unat ?sz = length xs + 2 ^ 32 - unat old_count"
      using sz by (simp add: unat_sub_if_size word_size)
    have fits: "?i + (length xs - ?e) \<le> length b"
      using nsz assms(4) lt(2) b(2) total_allocator.reserve_capacity [OF assms(1), of ?sz self] True
      by (simp add: word_le_nat_alt)
    let ?b = "take ?i b @ map Some (drop ?e xs) @ drop (?i + (length xs - ?e)) b"
    have pre: "take ?i b = map Some (take ?i xs)"
      using assms(3) b(4) by (metis min.absorb1 take_map take_take)
    have len: "?i + (length xs - ?e) = unat ?sz" using nsz assms(4) lt(2) True by simp
    have "array__splice al zero self index old_count 0 None =
        Inr (?self\<lparr>contents := Some ?b, array_size := ?sz\<rparr>)"
      unfolding eq using fits lt by (simp add: mem_write_def)
    moreover have "array_rep (?self\<lparr>contents := Some ?b, array_size := ?sz\<rparr>) (take ?i xs @ drop ?e xs)"
      by (rule array_repI [of _ ?b]) (use pre len fits assms(3) b(2,3) in simp_all)
    ultimately show ?thesis using True by auto
  next
    case False
    then have "2 ^ 32 \<le> ?i + (length xs - ?e)" using assms(4) lt(2) by linarith
    with b(2) unat_less_32 [of "capacity ?self"] have "length b < ?i + (length xs - ?e)" by linarith
    with False lt show ?thesis unfolding eq by (simp add: mem_write_def)
  qed
qed

theorem array_splice_wraps_witness:
  "\<exists>self'. array__splice heap_allocator 0
      \<lparr>contents = Some [Some 5, Some 7, None, None], array_size = 2, capacity = 4\<rparr> 1 (- 1) 0 None =
      Inr self' \<and> array_rep self' [5, 5, 7 :: int]"
proof -
  have "unat (- 1 :: 32 word) = 2 ^ 32 - 1"
    by (simp add: unsigned_minus_1_eq_mask mask_eq_exp_minus_1)
  with array_splice_wraps [OF heap.total_allocator_axioms example_rep, of 1 "- 1" 0] show ?thesis by simp
qed

end
