(* ===== verification/Spec2Isabelle.thy ===== *)
theory Spec2Isabelle
  imports Dart_Stack Dart_Language Char_Set TS_Array
begin

text \<open>
  The repository is a code-intelligence server written in Go. Its C code is one component, the
  tree-sitter grammar for Dart under \<^verbatim>\<open>src/internal/parser/dartlang\<close>, linked into the Go program and
  run by the tree-sitter runtime, a library that is not part of the repository. This development
  models that code: the hand-written external scanner (\<^verbatim>\<open>scanner.c\<close>), the generated lexers and tables
  (\<^verbatim>\<open>parser.c\<close>) and the headers they use (\<^verbatim>\<open>tree_sitter/parser.h\<close>, \<^verbatim>\<open>tree_sitter/array.h\<close>).

  \<^bold>\<open>How the parts interact.\<close> The runtime drives a parser whose states are the rows of the parse tables.
  In a state it looks up the lexer mode (\<^verbatim>\<open>ts_lex_modes\<close>), calls the external scanner with a row of
  \<^verbatim>\<open>ts_external_scanner_states\<close>, then the main lexer \<^verbatim>\<open>ts_lex\<close> with a start state; an identifier is given
  to \<^verbatim>\<open>ts_lex_keywords\<close>. The token selects an entry of \<^verbatim>\<open>ts_parse_table\<close> or \<^verbatim>\<open>ts_small_parse_table\<close>, the
  index of a group in \<^verbatim>\<open>ts_parse_actions\<close>: shifts, which name the next state, or reductions, which name a
  symbol and a production with its fields and aliases. The lexers see the input only through the
  function pointers of \<^verbatim>\<open>struct TSLexer\<close>, and never store anything but the result symbol and the mark.

  \<^bold>\<open>Theories.\<close>
    \<^item> \<open>Prelude\<close>, \<open>C_Chars\<close>: shared types and rewrite rules, ASCII constants, arrays with designated
      initialisers (\<open>designated\<close>, \<open>designated_unsized\<close>, \<open>laid_out\<close>), 32-bit arithmetic.
    \<^item> \<open>TSLexer\<close>: \<^verbatim>\<open>struct TSLexer\<close> with its operations as a record of functions and the locale \<open>tslexer\<close>
      with the laws of the runtime (what \<open>advance\<close>, \<open>mark_end\<close> and \<open>eof\<close> do to the remaining input),
      interpreted by a lexer over a buffer in memory.
    \<^item> \<open>Lex_Machine\<close>: the lexer macros (\<^verbatim>\<open>START_LEXER\<close>, \<^verbatim>\<open>ADVANCE\<close>, \<^verbatim>\<open>ADVANCE_MAP\<close>, \<^verbatim>\<open>SKIP\<close>, \<^verbatim>\<open>ACCEPT_TOKEN\<close>,
      \<^verbatim>\<open>END_STATE\<close>) as a loop over a switch, \<open>lex_loop\<close>; the function \<open>lex_word\<close> on lists of code points,
      which every generated lexer refines (locale \<open>lex_client\<close>), and maximal munch.
    \<^item> \<open>Lexemes\<close>: two more interfaces of generated lexers. \<open>lexeme_switch\<close>: every state has a description
      of the text read so far, kept by every jump; \<open>trie_switch\<close>: the states are the residuals of a
      list of words.
    \<^item> \<open>Dart_Symbols\<close>: the sizes and the symbol numbers; \<open>Dart_Keywords\<close>, \<open>Dart_Lex\<close>: all cases of the two
      generated lexers and the interpretations of the interfaces on them.
    \<^item> \<open>Dart_Texts\<close>, \<open>Dart_Lexemes\<close>: the texts of the tokens and the proof that the main lexer returns no
      others; \<open>Dart_Modes\<close>, \<open>Dart_Lexer\<close>: the table of modes and what the main lexer does in them.
    \<^item> \<open>Dart_Scanner\<close>, \<open>Dart_External\<close>: every function of \<^verbatim>\<open>scanner.c\<close>, and the tables that connect it to
      the grammar.
    \<^item> \<open>Dart_Names\<close>, \<open>Dart_Fields\<close>, \<open>Dart_Actions\<close>, \<open>Dart_Primary\<close>: names, public map and metadata of the
      symbols; fields and aliases; the action groups; the primary states.
    \<^item> \<open>Dart_Expect\<close>: for every lexer mode a text for every terminal the parser expects in it, and the
      terminals the external scanner keeps away; \<open>Dart_Counts\<close>: the symbols, productions and fields in use.
    \<^item> \<open>Dart_Table\<close>: the macros of the parse tables and the map of the small table; \<open>Dart_Items\<close>: for every
      parse state the items of the automaton (how many symbols of a rule for which non-terminal are on
      the stack), a certificate the sources do not contain, and the check every row and group is put to;
      \<open>Dart_Rows_1\<close> to \<open>Dart_Rows_8\<close>: the 494 rows of \<^verbatim>\<open>ts_parse_table\<close>; \<open>Dart_Small_1\<close> to \<open>Dart_Small_10\<close>:
      the 3083 groups of \<^verbatim>\<open>ts_small_parse_table\<close>; \<open>Dart_Parse_Table\<close>: both tables and the entries of a
      state; \<open>Dart_Stack\<close>: the stacks of states the tables lead to.
    \<^item> \<open>Dart_Language\<close>: \<^verbatim>\<open>struct TSLanguage\<close> and \<^verbatim>\<open>tree_sitter_dart\<close>.
    \<^item> \<open>Char_Set\<close>: \<^verbatim>\<open>set_contains\<close>; \<open>TS_Array\<close>: every operation of \<^verbatim>\<open>array.h\<close>, with the memory block explicit.

  \<^bold>\<open>What the theorems show.\<close>
    \<^item> The main lexer returns from every state on every input (\<open>ts_lex_maximal_munch\<close>) and takes the
      longest token; in the mode of a parse state it skips white space only and returns only texts its
      symbols allow (\<open>ts_lex_sound\<close>), none of them empty but for line comments (\<open>ts_lex_progress\<close>).
      Fixed tokens, identifiers and integers are all found.
    \<^item> The keyword lexer finds exactly the longest reserved word (\<open>ts_lex_keywords_longest\<close>).
    \<^item> The external scanner finds exactly the well nested block comments and the string texts, and
      only returns tokens that are valid in the row it was called with.
    \<^item> One step of lexing in any state with a mode ends, and the tokens of the three lexers are
      disjoint (\<open>lexing_step\<close>).
    \<^item> The parse tables are closed: their entries name states, action groups and productions that exist
      (\<open>parse_tables_closed\<close>, \<open>parse_actions_in_bounds\<close>, \<open>parse_actions_layout\<close>, \<open>field_map_in_bounds\<close>); the
      flat small table reads back as written (\<open>small_table_roundtrip\<close>); no action lies behind one that
      ends the round (\<open>action_groups_ordered\<close>).
    \<^item> Every reduction on a stack the tables lead to finds its children and a state to go to
      (\<open>reductions_find_goto\<close>): a driver is never stuck between two tokens. It accepts only at the end of
      the file, with a whole program and nothing else on the stack (\<open>accepts_whole_program\<close>). From the
      lexers to acceptance this is followed for files of white space (\<open>blank_file_accepted\<close>).
    \<^item> Every terminal a state has an entry for is delivered on some text in its lexer mode, with the
      external scanner run first (\<open>parse_tables_lexable\<close>). The exceptions are shown to be dead entries: block
      comments in the states inside strings, where the scanner only looks for string texts, and in the
      error state 0, where it does so as well, all external tokens but two and the raw string openers.
      Every anonymous token is spelled as its name says (\<open>anonymous_tokens_spelled\<close>).
    \<^item> Names, metadata, public map and primary states agree, and the counts of the descriptor are those
      the tables show (\<open>language_counts\<close>): the indices the initialisers name and what the actions use.
    \<^item> The array operations refine operations on lists while sizes fit into 32 bits and memory is
      there; the theorems \<open>array_push_overflow\<close>, \<open>array_push_no_memory\<close> and \<open>array_splice_wraps\<close> show what
      happens otherwise. The binary searches agree with linear ones; the search by a field converts its
      operands to \<^verbatim>\<open>int\<close> (\<open>to_int\<close>) and is right for values that fit there with their differences.

  \<^bold>\<open>Conventions.\<close> Code points and lookaheads are of type \<open>int\<close>, since the code only stores and compares
  them; the 16-bit numbers of states and symbols are of type \<open>nat\<close> for the same reason, all of them are
  constants below \<open>2 ^ 16\<close>. The arithmetic of \<^verbatim>\<open>array.h\<close>, of \<^verbatim>\<open>set_contains\<close> and the nesting depth of
  comments is on 32-bit words, hence the bound \<open>2 ^ 32\<close> on the input of the theorems on comments: the
  depth cannot wrap around in a shorter input. Loops that run on the lexer are partial functions that
  are \<open>None\<close> when they do not return; that they return is part of the theorems. No fuel is used. The
  tables are lists of index and value in blocks of at most 150 lines of the source; a table with
  designated initialisers is the map of its list. White space is that of the C locale
  (\<^verbatim>\<open>iswspace\<close>).

  \<^bold>\<open>Not modelled.\<close> The tree-sitter runtime, in particular its LR driver and error recovery: it is not
  in the repository, and the laws of \<open>tslexer\<close> are all that is assumed of it. The relation \<open>lr_step\<close> of
  \<open>Dart_Stack\<close> is no model of the driver; it says which stacks of states the entries of the tables allow,
  with the comments as extras, one stack at a time and without error recovery. The other fields of the
  runtime's lexer (columns, included ranges), which this code does not use. \<^verbatim>\<open>tree_sitter/alloc.h\<close>, which
  only gives names to the allocator; the array model takes the allocator as a parameter. Freed memory.
  The payload of the external scanner is \<^verbatim>\<open>NULL\<close>: it has no state. The Go code around the C parser.
\<close>

subsection \<open>One step of lexing\<close>

text \<open>
  C1. One step of lexing, as the runtime takes it in a parse state with a mode: the external scanner
  called with the row of the mode, the main lexer started in the state of the mode and the keyword
  lexer all return on every input of fewer than \<open>2 ^ 32\<close> code points. What they find is a terminal of
  the grammar and tells which of them found it: an external token, one that is valid in the row; a
  token that is neither an external token nor a reserved word; a reserved word.
\<close>

theorem lexing_step:
  assumes "tslexer ops valid rest start mark" and "valid l" and "start l = rest l"
    and "length (rest l) < 2 ^ 32" and "ts_lex_modes p = Some m" and "m \<noteq> NO_LEX_MODE"
  shows "\<exists>x l1 r l2 k l3.
    external_scanner_scan ops pl l (ts_external_scanner_states ! external_lex_state m) = Some (x, l1) \<and>
    (x \<longrightarrow> result_symbol l1 < EXTERNAL_TOKEN_COUNT \<and>
      ts_external_scanner_states ! external_lex_state m ! result_symbol l1 \<and>
      TOKEN_COUNT - EXTERNAL_TOKEN_COUNT \<le> ts_external_scanner_symbol_map ! result_symbol l1 \<and>
      ts_external_scanner_symbol_map ! result_symbol l1 < TOKEN_COUNT) \<and>
    ts_lex ops (lex_state m) l = Some (r, l2) \<and>
    (r \<longrightarrow> result_symbol l2 < TOKEN_COUNT - EXTERNAL_TOKEN_COUNT \<and>
      result_symbol l2 \<notin> set (map snd dart_keywords)) \<and>
    ts_lex_keywords ops 0 l = Some (k, l3) \<and>
    (k \<longrightarrow> result_symbol l3 \<in> set (map snd dart_keywords))"
proof -
  note m = mode_used [OF assms(5,6)]
  from external_scan_valid [OF assms(1-4) m(2,3), of pl] obtain x l1 where
    x: "external_scanner_scan ops pl l (ts_external_scanner_states ! external_lex_state m) = Some (x, l1)"
      "x \<longrightarrow> result_symbol l1 < EXTERNAL_TOKEN_COUNT \<and>
        ts_external_scanner_states ! external_lex_state m ! result_symbol l1"
    by blast
  have map: "ts_external_scanner_symbol_map ! i = TOKEN_COUNT - EXTERNAL_TOKEN_COUNT + i"
    if "i < EXTERNAL_TOKEN_COUNT" for i
    using that by (simp add: external_symbol_map_eq del: upt_rec_numeral)
  have "lex_start (lex_state m)" using m(1) mode_states_start by (simp add: list_all_iff)
  from ts_lex_start [OF assms(1-3) this] obtain r l2 where
    r: "ts_lex ops (lex_state m) l = Some (r, l2)" "r \<longrightarrow> lexer_token (result_symbol l2)"
    using token_of_lexer_token by (metis (full_types))
  from ts_lex_keywords_symbol [OF assms(1-3)] obtain k l3 where
    k: "ts_lex_keywords ops 0 l = Some (k, l3)" "k \<longrightarrow> result_symbol l3 \<in> set (map snd dart_keywords)"
    by blast
  from x r k map show ?thesis by (auto simp: lexer_token_def)
qed

theorem lexing_step_witness:
  "\<exists>r l2. ts_lex buf_ops (lex_state (LM 0 1)) (buf_init (codes ''while'')) = Some (r, l2)"
proof -
  have l: "buf_from (buf_init (codes ''while'')) = buf_rest (buf_init (codes ''while''))"
    "length (buf_rest (buf_init (codes ''while''))) < 2 ^ 32" "LM 0 1 \<noteq> NO_LEX_MODE" by simp_all
  from lexing_step [OF buf.tslexer_axioms buf_init_simps(1) l(1,2) ts_lex_modes_0 l(3)]
  show ?thesis by blast
qed

subsection \<open>An empty file\<close>

text \<open>White space, in the state of the lexer the parser starts with.\<close>

lemma jump_100:
  "is_blank c \<Longrightarrow> jump_of ts_lex_switch 100 False c = SKIP 100"
  "jump_of ts_lex_switch 100 True 0 = ADVANCE 103" "accept_of ts_lex_switch 100 = None"
  "accept_of ts_lex_switch 103 = Some ts_builtin_sym_end" "jump_of ts_lex_switch 103 True 0 = END_STATE"
  by (auto simp: jump_of_def accept_of_def ts_lex_bodies is_blank_def)

lemma lex_word_100_blanks:
  "list_all is_blank b \<Longrightarrow> lex_word ts_lex_switch b 100 b None = ([], Some (ts_builtin_sym_end, []))"
  by (induction b) (simp_all add: jump_100)

lemma blanks_dropWhile: "list_all is_blank b \<Longrightarrow> dropWhile iswspace b = []"
  by (auto simp: list_all_iff is_blank_def iswspace_def)

text \<open>
  C18. A file of white space, from the lexers to acceptance: in the mode of the start state the
  external scanner finds no comment and the main lexer finds the end of the file behind the white
  space; the tables reduce nothing to a program, go to the state for it, and accept there.
\<close>

theorem blank_file_accepted:
  assumes "tslexer ops valid rest start mark" and "valid l" and "start l = rest l"
    and "length (rest l) < 2 ^ 32" and "list_all is_blank (rest l)"
  shows "\<exists>m l1 l2 s. ts_lex_modes 1 = Some m \<and>
    external_scanner_scan ops pl l (ts_external_scanner_states ! external_lex_state m) = Some (False, l1) \<and>
    ts_lex ops (lex_state m) l = Some (True, l2) \<and> result_symbol l2 = ts_builtin_sym_end \<and>
    start l2 = [] \<and> mark l2 = Some [] \<and>
    state_actions 1 ts_builtin_sym_end [REDUCE sym_program 0 0 0] \<and> lr_step [1] [s, 1] \<and>
    state_actions s ts_builtin_sym_end [ACCEPT_INPUT]"
proof -
  have none: "\<not> comment_at [] ts us" for ts us using comment_at_prefix [of "[]" ts us] by auto
  have "\<not> wants_template (ts_external_scanner_states ! 2)" by (simp add: external_states_eq wants_template_def)
  from scan_comments [OF assms(1-4) this, of pl] obtain l1 where
    "external_scanner_scan ops pl l (ts_external_scanner_states ! 2) = Some (False, l1)"
    by (auto simp: blanks_dropWhile [OF assms(5)] none Let_def split: if_splits)
  note scan = this
  have "ts_lex_switch 100 \<noteq> None" by (simp add: ts_lex_bodies)
  from ts_lex_word [OF assms(1-3) this lex_word_100_blanks [OF assms(5)]] obtain l2 where
    "ts_lex ops 100 l = Some (True, l2)" "result_symbol l2 = ts_builtin_sym_end" "start l2 = []"
    "mark l2 = Some []"
    by (auto simp: records_def)
  moreover have "ts_lex_modes 1 = Some (LM 100 2)" by simp
  ultimately show ?thesis using scan start_actions accept_step accept_actions by fastforce
qed

theorem blank_file_accepted_witness:
  "\<exists>l2. ts_lex buf_ops 100 (buf_init (codes ''  '')) = Some (True, l2) \<and>
    result_symbol l2 = ts_builtin_sym_end"
proof -
  have l: "buf_from (buf_init (codes ''  '')) = buf_rest (buf_init (codes ''  ''))"
    "length (buf_rest (buf_init (codes ''  ''))) < 2 ^ 32" "list_all is_blank (buf_rest (buf_init (codes ''  '')))"
    by (simp_all add: is_blank_def CH_def)
  from blank_file_accepted [OF buf.tslexer_axioms buf_init_simps(1) l]
  show ?thesis by auto
qed

end
